(* ===== verification/Prelude.thy ===== *)
theory Prelude
  imports Main "HOL-Library.Word" "HOL-Library.Sublist"
begin

text \<open>
  The types and the generic facts every component of the development shares.

  A C buffer that holds text (a Ruby String read through \<open>RSTRING_PTR\<close> and
  \<open>RSTRING_LEN\<close>, or a \<open>const char *\<close> with a length) is a \<open>string\<close>; a buffer that holds
  binary data (STUN messages, WebSocket frames) is a list of bytes.  C's \<open>char\<close> is the
  signed 8-bit type of the x86 and x86-64 ABIs the program is built for: \<open>schar\<close> reads the
  value the C code compares, a number from -128 to 127.
\<close>

type_synonym byte = "8 word"

type_synonym buffer = "byte list"

definition schar :: "char \<Rightarrow> int" where
  "schar c = (if (of_char c :: int) < 128 then of_char c else of_char c - 256)"

definition of_schar :: "int \<Rightarrow> char" where
  "of_schar i = char_of (if i < 0 then i + 256 else i)"

named_theorems wf_intros \<open>introduction rules for the well-formedness invariants\<close>

named_theorems bound_simps \<open>lengths and bounds of the buffers the code writes\<close>

subsection \<open>Signed characters\<close>

lemma of_char_int_eq: "(of_char c :: int) = int (of_char c)"
  by (simp only: of_nat_of_char)

lemma of_char_int_bounds: "0 \<le> (of_char c :: int)" "(of_char c :: int) < 256"
proof -
  have "(of_char c :: nat) < 256" by simp
  then show "0 \<le> (of_char c :: int)" "(of_char c :: int) < 256"
    unfolding of_char_int_eq [of c] by linarith+
qed

lemma schar_range [simp]: "-128 \<le> schar c" "schar c \<le> 127"
proof -
  show "-128 \<le> schar c"
    using of_char_int_bounds [of c] unfolding schar_def by (cases "(of_char c :: int) < 128") simp_all
  show "schar c \<le> 127"
    using of_char_int_bounds [of c] unfolding schar_def by (cases "(of_char c :: int) < 128") simp_all
qed

lemma schar_mod: "schar c mod 256 = of_char c"
proof (cases "(of_char c :: int) < 128")
  case True
  with of_char_int_bounds [of c] show ?thesis by (simp add: schar_def)
next
  case False
  have "(of_char c - 256) mod 256 = (of_char c :: int) mod 256"
    by (metis minus_mod_self2)
  with False of_char_int_bounds [of c] show ?thesis by (simp add: schar_def)
qed

lemma schar_inject [simp]: "schar c = schar d \<longleftrightarrow> c = d"
proof
  assume "schar c = schar d"
  then have "(of_char c :: int) = of_char d" by (metis schar_mod)
  then have "(of_char c :: nat) = of_char d"
    unfolding of_char_int_eq by simp
  then show "c = d" by simp
qed simp

lemma schar_of_schar [simp]:
  assumes "-128 \<le> i" and "i \<le> 127"
  shows "schar (of_schar i) = i"
proof -
  let ?j = "if i < 0 then i + 256 else i"
  have j: "0 \<le> ?j" "?j < 256" using assms by auto
  have "(of_char (char_of ?j) :: int) = ?j mod 256" by (rule of_char_of)
  also have "\<dots> = ?j" using j by simp
  finally have "(of_char (of_schar i) :: int) = ?j" by (simp add: of_schar_def)
  then show ?thesis using assms by (auto simp: schar_def)
qed

lemma schar_surj: "-128 \<le> i \<Longrightarrow> i \<le> 127 \<Longrightarrow> \<exists>c. schar c = i"
  by (rule exI [of _ "of_schar i"]) simp

subsection \<open>Lists\<close>

lemma nth_take_Suc: "i < length xs \<Longrightarrow> take (Suc i) xs = take i xs @ [xs ! i]"
  by (simp add: take_Suc_conv_app_nth)

lemma sorted_le_last: "sorted (xs :: 'a::linorder list) \<Longrightarrow> x \<in> set xs \<Longrightarrow> x \<le> last xs"
  by (induction xs) (auto dest: last_in_set)

lemma map_of_find_mem: "map_of xs k = Some v \<Longrightarrow> (k, v) \<in> set xs"
  by (rule map_of_SomeD)

lemma find_Some_mem: "List.find P xs = Some x \<Longrightarrow> x \<in> set xs \<and> P x"
  by (auto simp: find_Some_iff)

lemma list_all_appendI [wf_intros]: "list_all P xs \<Longrightarrow> list_all P ys \<Longrightarrow> list_all P (xs @ ys)"
  by simp

end
