(* ===== verification/Ragel_Goto.thy ===== *)
theory Ragel_Goto
  imports Prelude
begin

text \<open>
  The shape of the C that \<open>ragel -G2\<close> emits (ext/utils/ip_utils.c, outbound_utils.c and
  haproxy_protocol.c): one \<open>case n:\<close> block per state, which dispatches on \<open>*p\<close> with a
  \<open>switch\<close> over single characters and nested \<open>if\<close>s over ranges and ends in \<open>goto st0\<close>, and
  one \<open>tr n:\<close> block per transition that runs actions, which ends in a \<open>goto\<close> to a state.
  A block is a row here, a generated program is the list of its blocks in the order of the
  file, and \<open>rgl_exec\<close> is the control flow they share.  The character range tests of one
  block are mutually exclusive, so a row lists them side by side.
\<close>

datatype rgl_label = St int | Tr int

datatype 'act rgl_block =
    Case int "(int \<times> rgl_label) list" "(int \<times> int \<times> rgl_label) list"
  | Trans int "'act list" int

fun rgl_dispatch ::
  "(int \<times> rgl_label) list \<Rightarrow> (int \<times> int \<times> rgl_label) list \<Rightarrow> int \<Rightarrow> rgl_label" where
  "rgl_dispatch ((k, l) # singles) ranges c =
     (if c = k then l else rgl_dispatch singles ranges c)"
| "rgl_dispatch [] ((lo, hi, l) # ranges) c =
     (if lo \<le> c \<and> c \<le> hi then l else rgl_dispatch [] ranges c)"
| "rgl_dispatch [] [] c = St 0"

fun rgl_case ::
  "'act rgl_block list \<Rightarrow> int \<Rightarrow> ((int \<times> rgl_label) list \<times> (int \<times> int \<times> rgl_label) list) option" where
  "rgl_case [] s = None"
| "rgl_case (Case n sg rg # bs) s = (if s = n then Some (sg, rg) else rgl_case bs s)"
| "rgl_case (Trans n as t # bs) s = rgl_case bs s"

fun rgl_trans :: "'act rgl_block list \<Rightarrow> int \<Rightarrow> ('act list \<times> int) option" where
  "rgl_trans [] k = None"
| "rgl_trans (Case n sg rg # bs) k = rgl_trans bs k"
| "rgl_trans (Trans n as t # bs) k = (if k = n then Some (as, t) else rgl_trans bs k)"

text \<open>
  Where a label leads: \<open>st0\<close> is the error exit, \<open>st n\<close> moves to state \<open>n\<close>, \<open>tr n\<close> runs
  its actions first.
\<close>

fun rgl_goto :: "'act rgl_block list \<Rightarrow> rgl_label \<Rightarrow> ('act list \<times> int) option" where
  "rgl_goto prog (St n) = (if n = 0 then None else Some ([], n))"
| "rgl_goto prog (Tr k) = rgl_trans prog k"

definition rgl_step :: "'act rgl_block list \<Rightarrow> int \<Rightarrow> int \<Rightarrow> ('act list \<times> int) option" where
  "rgl_step prog s c =
     (case rgl_case prog s of
        None \<Rightarrow> None
      | Some (sg, rg) \<Rightarrow> rgl_goto prog (rgl_dispatch sg rg c))"

text \<open>
  The loop: \<open>rgl_exec prog act cs cursor input d\<close> is the final state, the final position of \<open>p\<close>
  (counted from the start of the buffer) and the data the actions wrote.  At the end of
  the input (\<open>_test_eof\<close>) the state is kept; the error exit sets it to 0 and leaves \<open>p\<close> on
  the character it could not take.
\<close>

fun rgl_exec ::
  "'act rgl_block list \<Rightarrow> ('act \<Rightarrow> nat \<Rightarrow> 'd \<Rightarrow> 'd) \<Rightarrow> int \<Rightarrow> nat \<Rightarrow> string \<Rightarrow> 'd \<Rightarrow> int \<times> nat \<times> 'd" where
  "rgl_exec prog act s p [] d = (s, p, d)"
| "rgl_exec prog act s p (c # w) d =
     (case rgl_step prog s (schar c) of
        None \<Rightarrow> (0, p, d)
      | Some (as, t) \<Rightarrow> rgl_exec prog act t (Suc p) w (fold (\<lambda>a. act a p) as d))"

text \<open>The state reached over a word, without the data, or \<open>None\<close> on the error exit.\<close>

fun rgl_run :: "'act rgl_block list \<Rightarrow> int \<Rightarrow> string \<Rightarrow> int option" where
  "rgl_run prog s [] = Some s"
| "rgl_run prog s (c # w) =
     (case rgl_step prog s (schar c) of None \<Rightarrow> None | Some (as, t) \<Rightarrow> rgl_run prog t w)"

lemma rgl_run_append:
  "rgl_run prog s (v @ w) = (case rgl_run prog s v of None \<Rightarrow> None | Some t \<Rightarrow> rgl_run prog t w)"
  by (induction v arbitrary: s) (auto split: option.splits)

lemma rgl_exec_pos_le:
  "rgl_exec prog act s p w d = (t, q, d') \<Longrightarrow> p \<le> q \<and> q \<le> p + length w"
  by (induction w arbitrary: s p d) (fastforce split: option.splits prod.splits)+

lemma rgl_exec_end_iff:
  "rgl_exec prog act s p w d = (t, q, d') \<Longrightarrow> q = p + length w \<longleftrightarrow> rgl_run prog s w \<noteq> None"
proof (induction w arbitrary: s p d)
  case Nil
  then show ?case by simp
next
  case (Cons c w)
  show ?case
  proof (cases "rgl_step prog s (schar c)")
    case None
    with Cons.prems show ?thesis by auto
  next
    case (Some x)
    obtain as u where x: "x = (as, u)" by (cases x)
    with Some Cons.prems
    have "rgl_exec prog act u (Suc p) w (fold (\<lambda>a. act a p) as d) = (t, q, d')" by simp
    from Cons.IH [OF this] show ?thesis by (simp add: Some x)
  qed
qed

lemma rgl_exec_state: "rgl_exec prog act s p w d = (t, q, d') \<Longrightarrow> rgl_run prog s w = Some u \<Longrightarrow> t = u"
  by (induction w arbitrary: s p d) (auto split: option.splits prod.splits)

lemma rgl_exec_append:
  assumes "rgl_run prog s v = Some t"
  shows "rgl_exec prog act s p (v @ w) d =
    rgl_exec prog act t (p + length v) w (snd (snd (rgl_exec prog act s p v d)))"
  using assms by (induction v arbitrary: s p d) (auto split: option.splits)

lemma rgl_case_mem: "rgl_case prog s = Some (sg, rg) \<Longrightarrow> Case s sg rg \<in> set prog"
  by (induction prog s rule: rgl_case.induct) (auto split: if_splits)

subsection \<open>The run as a sequence of events\<close>

text \<open>The actions of the transition taken on the character at position \<open>i\<close>.\<close>

definition rgl_acts :: "'act rgl_block list \<Rightarrow> int \<Rightarrow> string \<Rightarrow> nat \<Rightarrow> 'act list" where
  "rgl_acts prog s w i =
     (case rgl_run prog s (take i w) of
        None \<Rightarrow> []
      | Some t \<Rightarrow> (case rgl_step prog t (schar (w ! i)) of None \<Rightarrow> [] | Some (as, u) \<Rightarrow> as))"

lemma rgl_run_prefix:
  assumes "rgl_run prog s w = Some t" and "i < length w"
  obtains u as r where "rgl_run prog s (take i w) = Some u" "rgl_step prog u (schar (w ! i)) = Some (as, r)"
proof -
  have "w = take i w @ w ! i # drop (Suc i) w" using assms(2) by (simp add: id_take_nth_drop)
  then have "rgl_run prog s (take i w @ w ! i # drop (Suc i) w) = Some t" using assms(1) by simp
  then show thesis using that by (auto simp: rgl_run_append split: option.splits)
qed

lemma rgl_exec_events:
  assumes "rgl_run prog s w = Some t"
  shows "rgl_exec prog act s 0 w d =
    (t, length w, foldl (\<lambda>d i. fold (\<lambda>a. act a i) (rgl_acts prog s w i) d) d [0..<length w])"
  using assms
proof (induction w arbitrary: t rule: rev_induct)
  case (snoc c w)
  from snoc.prems obtain u as where u: "rgl_run prog s w = Some u" "rgl_step prog u (schar c) = Some (as, t)"
    by (auto simp: rgl_run_append split: option.splits)
  have acts: "rgl_acts prog s (w @ [c]) i = rgl_acts prog s w i" if "i < length w" for i
    using that by (simp add: rgl_acts_def nth_append cong: option.case_cong)
  have last: "rgl_acts prog s (w @ [c]) (length w) = as"
    using u by (simp add: rgl_acts_def)
  have "foldl (\<lambda>d i. fold (\<lambda>a. act a i) (rgl_acts prog s (w @ [c]) i) d) d [0..<length w] =
    foldl (\<lambda>d i. fold (\<lambda>a. act a i) (rgl_acts prog s w i) d) d [0..<length w]"
    by (rule foldl_cong) (simp_all add: acts)
  then show ?case
    using snoc.IH [OF u(1)] by (simp add: rgl_exec_append [OF u(1)] u(2) last)
qed simp

text \<open>A character the machine cannot take stops it in front of that character.\<close>

lemma rgl_exec_stops:
  assumes "rgl_run prog s w = Some t" and "rgl_run prog s (w @ [c]) = None"
  shows "rgl_exec prog act s 0 (w @ c # v) d =
    (0, length w, foldl (\<lambda>d i. fold (\<lambda>a. act a i) (rgl_acts prog s w i) d) d [0..<length w])"
proof -
  have "rgl_step prog t (schar c) = None"
    using assms by (auto simp: rgl_run_append split: option.splits)
  then show ?thesis
    using rgl_exec_events [OF assms(1), of act d] by (simp add: rgl_exec_append [OF assms(1)])
qed

end
