(* ===== verification/Grammar_Rx.thy ===== *)
theory Grammar_Rx
  imports Prelude
begin

text \<open>
  The grammar expressions of the \<open>.rl\<close> files (character ranges, concatenation, \<open>|\<close>, \<open>r?\<close> and
  \<open>r{n,m}\<close>) and their languages, with partial derivatives over stacks of expressions: a
  stack stands for the concatenation of its members and a list of stacks for the union of
  theirs.  The automata of the generated C are compared with the grammars through them.
\<close>

datatype rx = Eps | Ch int int | Cat rx rx | Alt rx rx | Rep nat nat rx

definition conc :: "string set \<Rightarrow> string set \<Rightarrow> string set" where
  "conc A B = {v @ w | v w. v \<in> A \<and> w \<in> B}"

primrec lpow :: "nat \<Rightarrow> string set \<Rightarrow> string set" where
  "lpow 0 A = {[]}"
| "lpow (Suc n) A = conc A (lpow n A)"

primrec lang :: "rx \<Rightarrow> string set" where
  "lang Eps = {[]}"
| "lang (Ch lo hi) = {[c] | c. lo \<le> schar c \<and> schar c \<le> hi}"
| "lang (Cat r s) = conc (lang r) (lang s)"
| "lang (Alt r s) = lang r \<union> lang s"
| "lang (Rep lo hi r) = (\<Union>n \<in> {lo..hi}. lpow n (lang r))"

abbreviation Lit :: "char \<Rightarrow> rx" where
  "Lit c \<equiv> Ch (schar c) (schar c)"

abbreviation Opt :: "rx \<Rightarrow> rx" where
  "Opt r \<equiv> Rep 0 1 r"

fun lang_stack :: "rx list \<Rightarrow> string set" where
  "lang_stack [] = {[]}"
| "lang_stack (r # k) = conc (lang r) (lang_stack k)"

definition lang_stacks :: "rx list list \<Rightarrow> string set" where
  "lang_stacks ks = (\<Union>k \<in> set ks. lang_stack k)"

text \<open>What is left of \<open>r{lo,hi}\<close>, in a form that is the same however it is reached.\<close>

definition rep_rest :: "nat \<Rightarrow> nat \<Rightarrow> rx \<Rightarrow> rx list" where
  "rep_rest lo hi r =
     (if lo = 0 \<and> hi = 0 then [] else if lo = 1 \<and> hi = 1 then [r] else [Rep lo hi r])"

primrec rx_weight :: "rx \<Rightarrow> nat" where
  "rx_weight Eps = 1"
| "rx_weight (Ch lo hi) = 1"
| "rx_weight (Cat r s) = Suc (rx_weight r + rx_weight s)"
| "rx_weight (Alt r s) = Suc (rx_weight r + rx_weight s)"
| "rx_weight (Rep lo hi r) = Suc (hi * Suc (rx_weight r))"

lemma rep_rest_weight: "sum_list (map rx_weight (rep_rest lo hi r)) \<le> Suc (hi * Suc (rx_weight r))"
  by (simp add: rep_rest_def)

function pd :: "int \<Rightarrow> rx list \<Rightarrow> rx list list" where
  "pd c [] = []"
| "pd c (Eps # k) = pd c k"
| "pd c (Ch lo hi # k) = (if lo \<le> c \<and> c \<le> hi then [k] else [])"
| "pd c (Cat r s # k) = pd c (r # s # k)"
| "pd c (Alt r s # k) = pd c (r # k) @ pd c (s # k)"
| "pd c (Rep lo hi r # k) =
     (if lo = 0 then pd c k else []) @
     (if hi = 0 then [] else pd c (r # rep_rest (lo - 1) (hi - 1) r @ k))"
  by pat_completeness auto
termination
proof (relation "measure (\<lambda>(c, k). sum_list (map rx_weight k))", goal_cases)
  case (7 c lo hi r k)
  then obtain h where h: "hi = Suc h" by (cases hi) auto
  have "sum_list (map rx_weight (rep_rest (lo - 1) h r)) \<le> Suc (h * Suc (rx_weight r))"
    by (rule rep_rest_weight)
  then show ?case by (simp add: h)
qed auto

subsection \<open>Derivatives and languages\<close>

lemma conc_Nil_left [simp]: "conc {[]} A = A"
  by (auto simp: conc_def)

lemma conc_Nil_right [simp]: "conc A {[]} = A"
  by (auto simp: conc_def)

lemma conc_empty [simp]: "conc {} A = {}" "conc A {} = {}"
  by (auto simp: conc_def)

lemma conc_assoc: "conc (conc A B) C = conc A (conc B C)"
  unfolding conc_def by (auto, metis append_assoc, metis append_assoc)

lemma conc_Un_left: "conc (A \<union> B) C = conc A C \<union> conc B C"
  by (auto simp: conc_def)

lemma conc_UN_right: "conc A (\<Union>x \<in> X. B x) = (\<Union>x \<in> X. conc A (B x))"
  by (auto simp: conc_def)

lemma lang_stack_append: "lang_stack (j @ k) = conc (lang_stack j) (lang_stack k)"
  by (induction j) (simp_all add: conc_assoc)

lemma lang_Rep_unfold:
  "lang (Rep lo hi r) =
     (if lo = 0 then {[]} else {}) \<union> (if hi = 0 then {} else conc (lang r) (lang (Rep (lo - 1) (hi - 1) r)))"
proof -
  have split: "{lo..hi} = (if lo = 0 then {0} else {}) \<union> (if hi = 0 then {} else Suc ` {lo - 1..hi - 1})"
  proof (rule set_eqI)
    fix n
    show "n \<in> {lo..hi} \<longleftrightarrow> n \<in> (if lo = 0 then {0} else {}) \<union> (if hi = 0 then {} else Suc ` {lo - 1..hi - 1})"
      by (cases n; cases hi) auto
  qed
  show ?thesis
    unfolding lang.simps split
    by (cases "lo = 0"; cases "hi = 0")
      (simp_all add: conc_UN_right UN_Un del: image_Suc_atLeastAtMost atLeastAtMost_iff)
qed

lemma Cons_in_conc:
  "c # w \<in> conc A B \<longleftrightarrow> [] \<in> A \<and> c # w \<in> B \<or> (\<exists>v u. w = v @ u \<and> c # v \<in> A \<and> u \<in> B)"
  unfolding conc_def by (auto simp: Cons_eq_append_conv; blast)

lemma lang_rep_rest: "lang_stack (rep_rest lo hi r) = lang (Rep lo hi r)"
  by (simp add: rep_rest_def)

lemma pd_correct:
  "c # w \<in> lang_stack k \<longleftrightarrow> (\<exists>k' \<in> set (pd (schar c) k). w \<in> lang_stack k')"
proof (induction "schar c" k rule: pd.induct)
  case (3 lo hi k)
  have "c # w \<in> conc (lang (Ch lo hi)) (lang_stack k) \<longleftrightarrow> lo \<le> schar c \<and> schar c \<le> hi \<and> w \<in> lang_stack k"
    by (auto simp: Cons_in_conc)
  then show ?case by simp
next
  case (4 r s k)
  then show ?case by (simp add: conc_assoc)
next
  case (5 r s k)
  then show ?case by (auto simp: conc_Un_left)
next
  case (6 lo hi r k)
  have "lang_stack (Rep lo hi r # k) =
      (if lo = 0 then lang_stack k else {}) \<union>
      (if hi = 0 then {} else lang_stack (r # rep_rest (lo - 1) (hi - 1) r @ k))"
    unfolding lang_stack.simps lang_stack_append lang_rep_rest lang_Rep_unfold [of lo hi r]
    by (simp add: conc_Un_left conc_assoc)
  with 6 show ?case by auto
qed auto

primrec rx_null :: "rx \<Rightarrow> bool" where
  "rx_null Eps = True"
| "rx_null (Ch lo hi) = False"
| "rx_null (Cat r s) = (rx_null r \<and> rx_null s)"
| "rx_null (Alt r s) = (rx_null r \<or> rx_null s)"
| "rx_null (Rep lo hi r) = (lo \<le> hi \<and> (lo = 0 \<or> rx_null r))"

lemma Nil_in_conc [simp]: "[] \<in> conc A B \<longleftrightarrow> [] \<in> A \<and> [] \<in> B"
  by (auto simp: conc_def)

lemma Nil_in_lpow [simp]: "[] \<in> lpow n A \<longleftrightarrow> n = 0 \<or> [] \<in> A"
  by (induction n) auto

lemma rx_null_correct: "[] \<in> lang r \<longleftrightarrow> rx_null r"
  by (induction r) (auto simp: Bex_def)

lemma stack_null_correct: "[] \<in> lang_stack k \<longleftrightarrow> list_all rx_null k"
  by (induction k) (auto simp: rx_null_correct)

definition stacks_null :: "rx list list \<Rightarrow> bool" where
  "stacks_null ks = list_ex (list_all rx_null) ks"

lemma stacks_null_correct: "[] \<in> lang_stacks ks \<longleftrightarrow> stacks_null ks"
  by (auto simp: lang_stacks_def stacks_null_def stack_null_correct list_ex_iff)

definition pds :: "int \<Rightarrow> rx list list \<Rightarrow> rx list list" where
  "pds c ks = concat (map (pd c) ks)"

lemma pds_correct: "w \<in> lang_stacks (pds (schar c) ks) \<longleftrightarrow> c # w \<in> lang_stacks ks"
  by (auto simp: lang_stacks_def pds_def pd_correct)

lemma lang_stacks_cong: "set ks = set ks' \<Longrightarrow> lang_stacks ks = lang_stacks ks'"
  by (simp add: lang_stacks_def)

lemma lang_stacks_Nil [simp]: "lang_stacks [] = {}"
  by (simp add: lang_stacks_def)

lemma lang_stacks_single [simp]: "lang_stacks [[r]] = lang r"
  by (simp add: lang_stacks_def)

text \<open>An expression whose ranges all hold characters has a word.\<close>

primrec rx_inhabited :: "rx \<Rightarrow> bool" where
  "rx_inhabited Eps = True"
| "rx_inhabited (Ch lo hi) = (-128 \<le> lo \<and> lo \<le> hi \<and> lo \<le> 127)"
| "rx_inhabited (Cat r s) = (rx_inhabited r \<and> rx_inhabited s)"
| "rx_inhabited (Alt r s) = (rx_inhabited r \<or> rx_inhabited s)"
| "rx_inhabited (Rep lo hi r) = (lo \<le> hi \<and> rx_inhabited r)"

lemma conc_empty_iff [simp]: "conc A B = {} \<longleftrightarrow> A = {} \<or> B = {}"
  by (auto simp: conc_def)

lemma lpow_nonempty: "A \<noteq> {} \<Longrightarrow> lpow n A \<noteq> {}"
  by (induction n) auto

lemma rx_inhabited_correct: "rx_inhabited r \<Longrightarrow> lang r \<noteq> {}"
proof (induction r)
  case (Ch lo hi)
  then obtain c where "schar c = lo" using schar_surj [of lo] by auto
  with Ch have "[c] \<in> lang (Ch lo hi)" by simp
  then show ?case by blast
next
  case (Rep lo hi r)
  then have "lpow lo (lang r) \<noteq> {}" "lo \<in> {lo..hi}" by (simp_all add: lpow_nonempty)
  then show ?case by (simp only: lang.simps) blast
qed auto

lemma stack_inhabited_correct: "list_all rx_inhabited k \<Longrightarrow> lang_stack k \<noteq> {}"
  by (induction k) (simp_all add: rx_inhabited_correct)

subsection \<open>Character classes\<close>

text \<open>
  The expressions and the automata compare a character with finitely many bounds only.
  Between two neighbouring bounds all characters behave alike, so one of each class is
  enough: the greatest bound below the character.
\<close>

definition agree :: "int list \<Rightarrow> int \<Rightarrow> int \<Rightarrow> bool" where
  "agree bs c d = list_all (\<lambda>b. b \<le> c \<longleftrightarrow> b \<le> d) bs"

definition char_class :: "int list \<Rightarrow> int \<Rightarrow> int" where
  "char_class bs c = last (takeWhile (\<lambda>b. b \<le> c) bs)"

lemma char_class_mem: "bs \<noteq> [] \<Longrightarrow> hd bs \<le> c \<Longrightarrow> char_class bs c \<in> set bs"
  by (cases bs) (auto simp: char_class_def dest: set_takeWhileD last_in_set)

lemma agree_char_class:
  assumes "sorted bs" and "bs \<noteq> []" and "hd bs \<le> c"
  shows "agree bs c (char_class bs c)"
proof -
  let ?t = "takeWhile (\<lambda>b. b \<le> c) bs"
  have t: "?t \<noteq> []" using assms by (cases bs) auto
  have "sorted ?t" using assms(1) by (rule sorted_takeWhile)
  have le: "char_class bs c \<le> c"
    using last_in_set [OF t] by (auto simp: char_class_def dest: set_takeWhileD)
  moreover have "b \<le> char_class bs c" if "b \<in> set bs" "b \<le> c" for b
  proof -
    have "b \<in> set ?t"
    proof (rule ccontr)
      assume "b \<notin> set ?t"
      then have "b \<in> set (dropWhile (\<lambda>b. b \<le> c) bs)"
        using that(1) by (metis Un_iff set_append takeWhile_dropWhile_id)
      then obtain x xs where d: "dropWhile (\<lambda>b. b \<le> c) bs = x # xs"
        by (cases "dropWhile (\<lambda>b. b \<le> c) bs") auto
      have "\<not> x \<le> c" using d by (metis hd_dropWhile list.distinct(1) list.sel(1))
      moreover have "sorted (x # xs)" unfolding d [symmetric] using assms(1) by (rule sorted_dropWhile)
      ultimately show False
        using \<open>b \<in> set (dropWhile (\<lambda>b. b \<le> c) bs)\<close> that(2) unfolding d by auto
    qed
    with \<open>sorted ?t\<close> show ?thesis
      unfolding char_class_def by (rule sorted_le_last)
  qed
  ultimately show ?thesis by (auto simp: agree_def list_all_iff)
qed

text \<open>The bounds a derivative of a stack compares its character with are in a list.\<close>

function first_in :: "int list \<Rightarrow> rx list \<Rightarrow> bool" where
  "first_in B [] = True"
| "first_in B (Eps # k) = first_in B k"
| "first_in B (Ch lo hi # k) = (lo \<in> set B \<and> hi + 1 \<in> set B)"
| "first_in B (Cat r s # k) = first_in B (r # s # k)"
| "first_in B (Alt r s # k) = (first_in B (r # k) \<and> first_in B (s # k))"
| "first_in B (Rep lo hi r # k) =
     ((if lo = 0 then first_in B k else True) \<and>
      (if hi = 0 then True else first_in B (r # rep_rest (lo - 1) (hi - 1) r @ k)))"
  by pat_completeness auto
termination
proof (relation "measure (\<lambda>(c, k). sum_list (map rx_weight k))", goal_cases)
  case (7 B lo hi r k)
  then obtain h where h: "hi = Suc h" by (cases hi) auto
  have "sum_list (map rx_weight (rep_rest (lo - 1) h r)) \<le> Suc (h * Suc (rx_weight r))"
    by (rule rep_rest_weight)
  then show ?case by (simp add: h)
qed auto

lemma pd_agree: "first_in B k \<Longrightarrow> agree B c d \<Longrightarrow> pd c k = pd d k"
proof (induction B k rule: first_in.induct)
  case (3 B lo hi k)
  then have "lo \<le> c \<longleftrightarrow> lo \<le> d" "hi + 1 \<le> c \<longleftrightarrow> hi + 1 \<le> d"
    unfolding agree_def list_all_iff by (simp_all only: first_in.simps)
  then have "lo \<le> c \<and> c \<le> hi \<longleftrightarrow> lo \<le> d \<and> d \<le> hi" by linarith
  then show ?case by simp
qed (auto split: if_splits)

subsection \<open>Deciding membership\<close>

text \<open>Membership of a word is computed by taking derivatives along it.\<close>

definition rx_matches :: "rx \<Rightarrow> string \<Rightarrow> bool" where
  "rx_matches r w = stacks_null (fold (\<lambda>c. pds (schar c)) w [[r]])"

lemma lang_stacks_fold_pds: "v \<in> lang_stacks (fold (\<lambda>c. pds (schar c)) w ks) \<longleftrightarrow> w @ v \<in> lang_stacks ks"
  by (induction w arbitrary: ks) (simp_all add: pds_correct)

lemma rx_matches_correct: "w \<in> lang r \<longleftrightarrow> rx_matches r w"
  using lang_stacks_fold_pds [of "[]" w "[[r]]"] by (simp add: rx_matches_def stacks_null_correct)

end
