(* ===== verification/Automaton_Cert.thy ===== *)
theory Automaton_Cert
  imports Ragel_Goto Grammar_Rx
begin

text \<open>
  What it takes for a generated automaton to recognise given grammars, as an interface.  The
  locale's parameters are a program, the grammars, and a certificate that gives, for every
  state, what each grammar still expects there (a list of stacks per grammar); its
  assumption is an executable check of one row of the program at a time.  The lemmas of the
  locale say that the program follows the grammars exactly: it reaches the error exit on the
  first character that no word of any grammar continues with, and never before.
\<close>

subsection \<open>The check of one row\<close>

type_synonym residual = "rx list list list"

definition row_bounds_ok ::
  "int list \<Rightarrow> (int \<times> rgl_label) list \<Rightarrow> (int \<times> int \<times> rgl_label) list \<Rightarrow> bool" where
  "row_bounds_ok B sg rg =
     (list_all (\<lambda>(k, l). k \<in> set B \<and> k + 1 \<in> set B) sg \<and>
      list_all (\<lambda>(lo, hi, l). lo \<in> set B \<and> hi + 1 \<in> set B) rg)"

text \<open>
  A certificate gives, for a state, the bounds of the character ranges that matter there and
  what the grammars can still expect; cells are checked for one character of each class.
\<close>

type_synonym certificate = "int \<Rightarrow> int list \<times> residual list"

fun ascending :: "int list \<Rightarrow> bool" where
  "ascending (a # b # r) = (a < b \<and> ascending (b # r))"
| "ascending r = True"

definition cell_ok ::
  "'act rgl_block list \<Rightarrow> certificate \<Rightarrow> int \<Rightarrow> ('act list \<Rightarrow> residual \<Rightarrow> residual \<Rightarrow> bool) \<Rightarrow>
   (int \<times> rgl_label) list \<Rightarrow> (int \<times> int \<times> rgl_label) list \<Rightarrow> residual \<Rightarrow> int \<Rightarrow> bool" where
  "cell_ok prog R n aok sg rg X c =
     (case rgl_goto prog (rgl_dispatch sg rg c) of
        None \<Rightarrow> list_all (\<lambda>ks. pds c ks = []) X
      | Some (as, t) \<Rightarrow>
          1 \<le> t \<and> t \<le> n \<and>
          list_ex (\<lambda>Y. map (pds c) X = Y \<and> aok as X Y) (snd (R t)))"

definition state_ok ::
  "'act rgl_block list \<Rightarrow> certificate \<Rightarrow> int \<Rightarrow> ('act list \<Rightarrow> residual \<Rightarrow> residual \<Rightarrow> bool) \<Rightarrow> int \<Rightarrow> bool" where
  "state_ok prog R n aok s =
     (case rgl_case prog s of
        None \<Rightarrow> False
      | Some (sg, rg) \<Rightarrow>
          (case R s of
             (B, Xs) \<Rightarrow>
               ascending B \<and> B \<noteq> [] \<and> hd B = -128 \<and> row_bounds_ok B sg rg \<and>
               list_all (\<lambda>X. list_ex (\<lambda>ks. ks \<noteq> []) X \<and> list_all (list_all (first_in B)) X \<and>
                 list_all (cell_ok prog R n aok sg rg X) B) Xs))"

lemma ascending_sorted: "ascending B \<Longrightarrow> sorted B"
proof (induction B rule: ascending.induct)
  case (1 a b r)
  then have "a < b" "sorted (b # r)" by simp_all
  then show ?case by (auto dest: order.strict_trans1)
qed simp_all

lemma agree_iff: "agree B c d \<Longrightarrow> b \<in> set B \<Longrightarrow> b \<le> c \<longleftrightarrow> b \<le> d"
  by (auto simp: agree_def list_all_iff)

lemma rgl_dispatch_agree:
  "row_bounds_ok B sg rg \<Longrightarrow> agree B c d \<Longrightarrow> rgl_dispatch sg rg c = rgl_dispatch sg rg d"
proof (induction sg rg c rule: rgl_dispatch.induct)
  case (1 k l sg rg c)
  then have "k \<in> set B" "k + 1 \<in> set B" by (auto simp: row_bounds_ok_def)
  then have "k \<le> c \<longleftrightarrow> k \<le> d" "k + 1 \<le> c \<longleftrightarrow> k + 1 \<le> d"
    using 1(3) by (auto simp only: agree_iff)
  then have "c = k \<longleftrightarrow> d = k" by linarith
  with 1 show ?case by (auto simp: row_bounds_ok_def)
next
  case (2 lo hi l rg c)
  then have "lo \<in> set B" "hi + 1 \<in> set B" by (auto simp: row_bounds_ok_def)
  then have "lo \<le> c \<longleftrightarrow> lo \<le> d" "hi + 1 \<le> c \<longleftrightarrow> hi + 1 \<le> d"
    using 2(3) by (auto simp only: agree_iff)
  then have "lo \<le> c \<and> c \<le> hi \<longleftrightarrow> lo \<le> d \<and> d \<le> hi" by linarith
  with 2 show ?case by (auto simp: row_bounds_ok_def)
qed simp

subsection \<open>What derivatives keep\<close>

text \<open>Every alternative of an expression can be completed to a word.\<close>

primrec rx_live :: "rx \<Rightarrow> bool" where
  "rx_live Eps = True"
| "rx_live (Ch lo hi) = (-128 \<le> lo \<and> lo \<le> hi \<and> lo \<le> 127)"
| "rx_live (Cat r s) = (rx_live r \<and> rx_live s)"
| "rx_live (Alt r s) = (rx_live r \<and> rx_live s)"
| "rx_live (Rep lo hi r) = (lo \<le> hi \<and> rx_live r)"

lemma rx_live_inhabited: "rx_live r \<Longrightarrow> rx_inhabited r"
  by (induction r) auto

lemma pd_live: "list_all rx_live k \<Longrightarrow> k' \<in> set (pd c k) \<Longrightarrow> list_all rx_live k'"
proof (induction c k rule: pd.induct)
  case (6 c lo hi r k)
  have "list_all rx_live (r # rep_rest (lo - 1) (hi - 1) r @ k)"
    using 6(3) by (auto simp: rep_rest_def)
  with 6 show ?case by (auto split: if_splits)
qed (auto split: if_splits)

definition stacks_live :: "rx list list \<Rightarrow> bool" where
  "stacks_live ks = list_all (list_all rx_live) ks"

lemma stacks_live_pds: "stacks_live ks \<Longrightarrow> stacks_live (pds c ks)"
  unfolding stacks_live_def pds_def list_all_iff [where ?xs = ks] list_all_iff [where ?xs = "concat _"]
  by (auto intro: pd_live)

lemma stacks_live_nonempty:
  assumes "stacks_live ks" and "ks \<noteq> []"
  shows "lang_stacks ks \<noteq> {}"
proof -
  from assms(2) obtain k where k: "k \<in> set ks" by (cases ks) auto
  with assms(1) have "list_all rx_inhabited k"
    by (auto simp: stacks_live_def list_all_iff intro: rx_live_inhabited)
  then have "lang_stack k \<noteq> {}" by (rule stack_inhabited_correct)
  with k show ?thesis by (auto simp: lang_stacks_def)
qed

lemma pds_agree: "list_all (first_in B) ks \<Longrightarrow> agree B c d \<Longrightarrow> pds c ks = pds d ks"
  unfolding pds_def
  by (rule arg_cong [where f = concat]) (auto simp: list_all_iff intro: pd_agree)

lemma list_all_upto_split:
  "list_all P [b'..c] \<Longrightarrow> b' - 1 = (b :: int) \<Longrightarrow> list_all P [a..b] \<Longrightarrow> list_all P [a..c]"
  by (auto simp: list_all_iff)

subsection \<open>Evaluating the check\<close>

text \<open>
  The check of a row is computed by rewriting with the equations below and with the tables of
  the program and of its certificate.  They are used alone (\<open>simp only\<close>), and a conditional
  or a \<open>case\<close> is decided before its branches are looked at, so that the tables stay folded.
\<close>

named_theorems cert_eval \<open>equations that compute the check of a row\<close>

lemma nat_cert_eval [cert_eval]:
  "Suc 0 = 1" "(0::nat) - 1 = 0" "(1::nat) - 1 = 0" "(2::nat) - 1 = 1" "(3::nat) - 1 = 2"
  "(4::nat) - 1 = 3" "(5::nat) - 1 = 4" "(6::nat) - 1 = 5"
  "((numeral k :: nat) = 0) = False" "((1::nat) = 0) = False" "((0::nat) = 0) = True"
  "((0::nat) = 1) = False" "((0::nat) = numeral k) = False"
  by simp_all

lemma int_cert_eval [cert_eval]:
  "((1::int) \<le> numeral k) = True" "((1::int) \<le> 1) = True" "((numeral k :: int) = 0) = False"
  "((0::int) = 0) = True" "((1::int) = 0) = False" "(numeral k :: int) + 1 = numeral (k + num.One)"
  by (simp_all add: numeral_plus_one)

lemmas [cert_eval] =
  state_ok_def cell_ok_def row_bounds_ok_def ascending.simps first_in.simps
  pds_def rep_rest_def stacks_null_def list.sel(1)
  rgl_dispatch.simps rgl_goto.simps rgl_case.simps rgl_trans.simps pd.simps rx_null.simps
  rel_simps arith_simps simp_thms if_True if_False
  option.case prod.case list.pred_inject list_ex_Nil_iff list_ex_Cons_iff list.map concat.simps
  append.simps list.set insert_iff empty_iff list.inject list.distinct prod.inject rx.inject
  rx.distinct zip_Cons_Cons zip_Nil filter.simps snd_conv fst_conv

lemmas cert_cong = option.case_cong_weak if_weak_cong

text \<open>Looking a row up in a program given as several pieces.\<close>

lemma rgl_case_append:
  "rgl_case (p @ q) s = (case rgl_case p s of None \<Rightarrow> rgl_case q s | Some r \<Rightarrow> Some r)"
  by (induction p s rule: rgl_case.induct) auto

lemma rgl_trans_append:
  "rgl_trans (p @ q) k = (case rgl_trans p k of None \<Rightarrow> rgl_trans q k | Some r \<Rightarrow> Some r)"
  by (induction p k rule: rgl_trans.induct) auto

subsection \<open>The interface\<close>

locale certified_automaton =
  fixes prog :: "'act rgl_block list"
    and start :: int
    and R :: certificate
    and n :: int
    and aok :: "'act list \<Rightarrow> residual \<Rightarrow> residual \<Rightarrow> bool"
    and gs :: "rx list"
  assumes grammars_live: "list_all rx_live gs"
    and start_residual: "1 \<le> start" "start \<le> n" "map (\<lambda>g. [[g]]) gs \<in> set (snd (R start))"
    and rows_ok: "list_all (state_ok prog R n aok) [1..n]"
begin

definition follows :: "string \<Rightarrow> residual \<Rightarrow> bool" where
  "follows w X \<longleftrightarrow>
     length X = length gs \<and>
     (\<forall>i < length gs. \<forall>v. v \<in> lang_stacks (X ! i) \<longleftrightarrow> w @ v \<in> lang (gs ! i))"

definition at_state :: "int \<Rightarrow> residual \<Rightarrow> bool" where
  "at_state s X \<longleftrightarrow> 1 \<le> s \<and> s \<le> n \<and> X \<in> set (snd (R s)) \<and> list_all stacks_live X"

lemma at_start: "at_state start (map (\<lambda>g. [[g]]) gs)" "follows [] (map (\<lambda>g. [[g]]) gs)"
  using grammars_live start_residual
  by (auto simp: at_state_def follows_def stacks_live_def list_all_iff)

lemma at_state_row:
  assumes "at_state s X"
  obtains sg rg B where "rgl_case prog s = Some (sg, rg)" "row_bounds_ok B sg rg"
    "sorted B" "B \<noteq> []" "hd B = -128"
    "list_ex (\<lambda>ks. ks \<noteq> []) X" "list_all (list_all (first_in B)) X"
    "list_all (cell_ok prog R n aok sg rg X) B"
proof -
  obtain B Xs where R: "R s = (B, Xs)" by (cases "R s")
  from assms have s: "1 \<le> s" "s \<le> n" "X \<in> set Xs" by (auto simp: at_state_def R)
  then have "state_ok prog R n aok s" using rows_ok by (simp add: list_all_iff)
  with s(3) that show thesis
    by (auto simp: state_ok_def R list_all_iff [where ?xs = Xs] ascending_sorted split: option.splits)
qed

lemma at_state_nonempty:
  assumes "at_state s X" and "follows w X"
  shows "\<exists>i < length gs. \<exists>v. w @ v \<in> lang (gs ! i)"
proof -
  have "list_ex (\<lambda>ks. ks \<noteq> []) X" by (rule at_state_row [OF assms(1)])
  then obtain ks where ks: "ks \<in> set X" "ks \<noteq> []" by (auto simp: list_ex_iff)
  from assms(1) ks(1) have "stacks_live ks" by (auto simp: at_state_def list_all_iff)
  then obtain v where "v \<in> lang_stacks ks" using stacks_live_nonempty ks(2) by blast
  moreover obtain i where "i < length X" "ks = X ! i" using ks(1) by (auto simp: in_set_conv_nth)
  ultimately show ?thesis using assms(2) by (auto simp: follows_def)
qed

lemma cell:
  assumes "at_state s X"
  obtains sg rg d where "rgl_case prog s = Some (sg, rg)" "cell_ok prog R n aok sg rg X d"
    "rgl_dispatch sg rg (schar c) = rgl_dispatch sg rg d"
    "map (pds d) X = map (pds (schar c)) X"
proof -
  obtain sg rg B where row: "rgl_case prog s = Some (sg, rg)" "row_bounds_ok B sg rg"
    "sorted B" "B \<noteq> []" "hd B = -128" "list_all (list_all (first_in B)) X"
    "list_all (cell_ok prog R n aok sg rg X) B"
    by (rule at_state_row [OF assms])
  have B: "hd B \<le> schar c" using row(5) by simp
  have ag: "agree B (schar c) (char_class B (schar c))"
    by (rule agree_char_class [OF row(3,4) B])
  have "pds (char_class B (schar c)) ks = pds (schar c) ks" if "ks \<in> set X" for ks
    using row(6) that by (intro pds_agree [symmetric, OF _ ag]) (simp add: list_all_iff)
  moreover have "char_class B (schar c) \<in> set B" by (rule char_class_mem [OF row(4) B])
  ultimately have "cell_ok prog R n aok sg rg X (char_class B (schar c))"
    "map (pds (char_class B (schar c))) X = map (pds (schar c)) X"
    using row(7) by (auto simp: list_all_iff)
  then show thesis using that [OF row(1)] rgl_dispatch_agree [OF row(2) ag] by blast
qed

lemma step_None:
  assumes "at_state s X" and "follows w X" and "rgl_step prog s (schar c) = None" and "i < length gs"
  shows "w @ c # v \<notin> lang (gs ! i)"
proof -
  obtain sg rg d where h: "rgl_case prog s = Some (sg, rg)" "cell_ok prog R n aok sg rg X d"
    "rgl_dispatch sg rg (schar c) = rgl_dispatch sg rg d"
    "map (pds d) X = map (pds (schar c)) X"
    by (rule cell [OF assms(1)])
  from assms(3) h(1,3) have "rgl_goto prog (rgl_dispatch sg rg d) = None"
    by (simp add: rgl_step_def)
  with h(2) have "\<forall>ks \<in> set (map (pds d) X). ks = []"
    by (simp add: cell_ok_def list_all_iff)
  then have "\<forall>ks \<in> set X. pds (schar c) ks = []" unfolding h(4) by simp
  moreover have "i < length X" using assms(2,4) by (simp add: follows_def)
  ultimately have "pds (schar c) (X ! i) = []" by simp
  then have "c # v \<notin> lang_stacks (X ! i)" using pds_correct [of v c "X ! i"] by simp
  with assms(2,4) show ?thesis by (simp add: follows_def)
qed

lemma step_Some:
  assumes "at_state s X" and "follows w X" and "rgl_step prog s (schar c) = Some (as, t)"
  obtains Y where "at_state t Y" "follows (w @ [c]) Y" "aok as X Y"
proof -
  obtain sg rg d where h: "rgl_case prog s = Some (sg, rg)" "cell_ok prog R n aok sg rg X d"
    "rgl_dispatch sg rg (schar c) = rgl_dispatch sg rg d"
    "map (pds d) X = map (pds (schar c)) X"
    by (rule cell [OF assms(1)])
  from assms(3) h(1,3) have "rgl_goto prog (rgl_dispatch sg rg d) = Some (as, t)"
    by (simp add: rgl_step_def)
  with h(2) have Y: "1 \<le> t" "t \<le> n" "map (pds (schar c)) X \<in> set (snd (R t))"
    "aok as X (map (pds (schar c)) X)"
    unfolding h(4) [symmetric] by (auto simp: cell_ok_def list_ex_iff)
  have "at_state t (map (pds (schar c)) X)"
    using Y(1-3) assms(1) by (auto simp: at_state_def list_all_iff intro: stacks_live_pds)
  moreover have "follows (w @ [c]) (map (pds (schar c)) X)"
    using assms(2) by (simp add: follows_def pds_correct)
  ultimately show thesis using Y(4) that by blast
qed

lemma run_follows:
  assumes "rgl_run prog start w = Some s"
  shows "\<exists>X. at_state s X \<and> follows w X"
  using assms
proof (induction w arbitrary: s rule: rev_induct)
  case Nil
  then show ?case using at_start by auto
next
  case (snoc c w)
  from snoc.prems obtain u as where u: "rgl_run prog start w = Some u"
    "rgl_step prog u (schar c) = Some (as, s)"
    by (auto simp: rgl_run_append split: option.splits)
  from snoc.IH [OF u(1)] obtain X where "at_state u X" "follows w X" by blast
  then show ?case using u(2) by (metis step_Some)
qed

lemma run_None:
  assumes "rgl_run prog start w = None" and "i < length gs"
  shows "w @ v \<notin> lang (gs ! i)"
  using assms
proof (induction w arbitrary: v rule: rev_induct)
  case Nil
  then show ?case by simp
next
  case (snoc c w)
  show ?case
  proof (cases "rgl_run prog start w")
    case None
    from snoc.IH [OF None snoc.prems(2), of "c # v"] show ?thesis by simp
  next
    case (Some u)
    with snoc.prems(1) have "rgl_step prog u (schar c) = None"
      by (auto simp: rgl_run_append split: option.splits)
    moreover from run_follows [OF Some] obtain X where "at_state u X" "follows w X" by blast
    ultimately have "w @ c # v \<notin> lang (gs ! i)" using snoc.prems(2) by (intro step_None)
    then show ?thesis by simp
  qed
qed

lemma run_viable: "rgl_run prog start w \<noteq> None \<longleftrightarrow> (\<exists>i < length gs. \<exists>v. w @ v \<in> lang (gs ! i))"
  using run_follows at_state_nonempty run_None by (metis not_None_eq)

lemma run_step_actions:
  assumes "rgl_run prog start w = Some s" and "rgl_step prog s (schar c) = Some (as, t)"
  shows "\<exists>X Y. follows w X \<and> follows (w @ [c]) Y \<and> aok as X Y"
  using run_follows [OF assms(1)] step_Some [OF _ _ assms(2)] by metis

lemma follows_accepts:
  "follows w X \<Longrightarrow> i < length gs \<Longrightarrow> stacks_null (X ! i) \<longleftrightarrow> w \<in> lang (gs ! i)"
  using stacks_null_correct [of "X ! i"] by (simp add: follows_def)

end

end
