(* ===== verification/Ip_Automaton.thy ===== *)
theory Ip_Automaton
  imports Automaton_Cert
begin

text \<open>
  The scanner of ext/utils/ip_utils.c (the \<open>-G2\<close> output for machine
  \<open>utils_ip_parser\<close>): its blocks in the order of the file, cut into pieces of at most
  150 source lines, and the lookup rules of each piece.  An action is the value the block
  assigns to \<open>ip_type\<close>.
\<close>

datatype enum_ip_type =
  ip_type_ipv4 | ip_type_ipv6 | ip_type_ipv6_reference | ip_type_error

definition ip_blocks_1 :: "enum_ip_type rgl_block list" where
  "ip_blocks_1 =
    [Case 1 [(48, St 2), (49, St 76), (50, St 79), (58, St 83), (91, St 86)] [(51, 57, St 82), (97,
       102, St 85), (65, 70, St 85)],
     Case 2 [(46, St 3), (58, St 19)] [(48, 57, St 16), (97, 102, St 16), (65, 70, St 16)],
     Case 3 [(48, St 4), (49, St 12), (50, St 14)] [(51, 57, St 13)],
     Case 4 [(46, St 5)] [],
     Case 5 [(48, St 6), (49, St 8), (50, St 10)] [(51, 57, St 9)],
     Case 6 [(46, St 7)] [],
     Case 7 [(48, Tr 21), (49, Tr 22), (50, Tr 23)] [(51, 57, Tr 24)],
     Trans 21 [ip_type_ipv4] 237,
     Trans 78 [ip_type_ipv6] 237,
     Trans 180 [ip_type_ipv6_reference] 237,
     Case 237 [] [],
     Trans 22 [ip_type_ipv4] 238,
     Case 238 [] [(48, 57, Tr 24)],
     Trans 24 [ip_type_ipv4] 239,
     Case 239 [] [(48, 57, Tr 21)],
     Trans 23 [ip_type_ipv4] 240]"

definition ip_blocks_2 :: "enum_ip_type rgl_block list" where
  "ip_blocks_2 =
    [Case 240 [(53, Tr 272)] [(54, 57, Tr 21), (48, 52, Tr 24)],
     Trans 272 [ip_type_ipv4] 241,
     Case 241 [] [(48, 53, Tr 21)],
     Case 8 [(46, St 7)] [(48, 57, St 9)],
     Case 9 [(46, St 7)] [(48, 57, St 6)],
     Case 10 [(46, St 7), (53, St 11)] [(54, 57, St 6), (48, 52, St 9)],
     Case 11 [(46, St 7)] [(48, 53, St 6)],
     Case 12 [(46, St 5)] [(48, 57, St 13)],
     Case 13 [(46, St 5)] [(48, 57, St 4)],
     Case 14 [(46, St 5), (53, St 15)] [(54, 57, St 4), (48, 52, St 13)],
     Case 15 [(46, St 5)] [(48, 53, St 4)],
     Case 16 [(58, St 19)] [(48, 57, St 17), (97, 102, St 17), (65, 70, St 17)],
     Case 17 [(58, St 19)] [(48, 57, St 18), (97, 102, St 18), (65, 70, St 18)],
     Case 18 [(58, St 19)] []]"

definition ip_blocks_3 :: "enum_ip_type rgl_block list" where
  "ip_blocks_3 =
    [Case 19 [(58, Tr 30)] [(48, 57, St 20), (97, 102, St 20), (65, 70, St 20)],
     Case 20 [(58, St 24)] [(48, 57, St 21), (97, 102, St 21), (65, 70, St 21)],
     Case 21 [(58, St 24)] [(48, 57, St 22), (97, 102, St 22), (65, 70, St 22)],
     Case 22 [(58, St 24)] [(48, 57, St 23), (97, 102, St 23), (65, 70, St 23)],
     Case 23 [(58, St 24)] [],
     Case 24 [(58, Tr 36)] [(48, 57, St 25), (97, 102, St 25), (65, 70, St 25)],
     Case 25 [(58, St 29)] [(48, 57, St 26), (97, 102, St 26), (65, 70, St 26)],
     Case 26 [(58, St 29)] [(48, 57, St 27), (97, 102, St 27), (65, 70, St 27)],
     Case 27 [(58, St 29)] [(48, 57, St 28), (97, 102, St 28), (65, 70, St 28)],
     Case 28 [(58, St 29)] []]"

definition ip_blocks_4 :: "enum_ip_type rgl_block list" where
  "ip_blocks_4 =
    [Case 29 [(58, Tr 42)] [(48, 57, St 30), (97, 102, St 30), (65, 70, St 30)],
     Case 30 [(58, St 34)] [(48, 57, St 31), (97, 102, St 31), (65, 70, St 31)],
     Case 31 [(58, St 34)] [(48, 57, St 32), (97, 102, St 32), (65, 70, St 32)],
     Case 32 [(58, St 34)] [(48, 57, St 33), (97, 102, St 33), (65, 70, St 33)],
     Case 33 [(58, St 34)] [],
     Case 34 [(58, Tr 48)] [(48, 57, St 35), (97, 102, St 35), (65, 70, St 35)],
     Case 35 [(58, St 39)] [(48, 57, St 36), (97, 102, St 36), (65, 70, St 36)],
     Case 36 [(58, St 39)] [(48, 57, St 37), (97, 102, St 37), (65, 70, St 37)],
     Case 37 [(58, St 39)] [(48, 57, St 38), (97, 102, St 38), (65, 70, St 38)],
     Case 38 [(58, St 39)] []]"

definition ip_blocks_5 :: "enum_ip_type rgl_block list" where
  "ip_blocks_5 =
    [Case 39 [(58, Tr 54)] [(48, 57, St 40), (97, 102, St 40), (65, 70, St 40)],
     Case 40 [(58, St 44)] [(48, 57, St 41), (97, 102, St 41), (65, 70, St 41)],
     Case 41 [(58, St 44)] [(48, 57, St 42), (97, 102, St 42), (65, 70, St 42)],
     Case 42 [(58, St 44)] [(48, 57, St 43), (97, 102, St 43), (65, 70, St 43)],
     Case 43 [(58, St 44)] [],
     Case 44 [(48, St 45), (49, St 63), (50, St 66), (58, Tr 63)] [(51, 57, St 69), (97, 102,
       St 70), (65, 70, St 70)],
     Case 45 [(46, St 46), (58, St 62)] [(48, 57, St 59), (97, 102, St 59), (65, 70, St 59)],
     Case 46 [(48, St 47), (49, St 55), (50, St 57)] [(51, 57, St 56)],
     Case 47 [(46, St 48)] [],
     Case 48 [(48, St 49), (49, St 51), (50, St 53)] [(51, 57, St 52)],
     Case 49 [(46, St 50)] []]"

definition ip_blocks_6 :: "enum_ip_type rgl_block list" where
  "ip_blocks_6 =
    [Case 50 [(48, Tr 78), (49, Tr 79), (50, Tr 80)] [(51, 57, Tr 81)],
     Trans 79 [ip_type_ipv6] 242,
     Case 242 [] [(48, 57, Tr 81)],
     Trans 81 [ip_type_ipv6] 243,
     Case 243 [] [(48, 57, Tr 78)],
     Trans 80 [ip_type_ipv6] 244,
     Case 244 [(53, Tr 273)] [(54, 57, Tr 78), (48, 52, Tr 81)],
     Trans 273 [ip_type_ipv6] 245,
     Case 245 [] [(48, 53, Tr 78)],
     Case 51 [(46, St 50)] [(48, 57, St 52)],
     Case 52 [(46, St 50)] [(48, 57, St 49)],
     Case 53 [(46, St 50), (53, St 54)] [(54, 57, St 49), (48, 52, St 52)],
     Case 54 [(46, St 50)] [(48, 53, St 49)],
     Case 55 [(46, St 48)] [(48, 57, St 56)],
     Case 56 [(46, St 48)] [(48, 57, St 47)],
     Case 57 [(46, St 48), (53, St 58)] [(54, 57, St 47), (48, 52, St 56)]]"

definition ip_blocks_7 :: "enum_ip_type rgl_block list" where
  "ip_blocks_7 =
    [Case 58 [(46, St 48)] [(48, 53, St 47)],
     Case 59 [(58, St 62)] [(48, 57, St 60), (97, 102, St 60), (65, 70, St 60)],
     Case 60 [(58, St 62)] [(48, 57, St 61), (97, 102, St 61), (65, 70, St 61)],
     Case 61 [(58, St 62)] [],
     Case 62 [(58, Tr 78)] [(48, 57, Tr 86), (97, 102, Tr 86), (65, 70, Tr 86)],
     Trans 86 [ip_type_ipv6] 246,
     Case 246 [] [(48, 57, Tr 274), (97, 102, Tr 274), (65, 70, Tr 274)],
     Trans 274 [ip_type_ipv6] 247,
     Case 247 [] [(48, 57, Tr 275), (97, 102, Tr 275), (65, 70, Tr 275)],
     Trans 275 [ip_type_ipv6] 248,
     Case 248 [] [(48, 57, Tr 78), (97, 102, Tr 78), (65, 70, Tr 78)],
     Case 63 [(46, St 46), (58, St 62)] [(48, 57, St 64), (97, 102, St 59), (65, 70, St 59)]]"

definition ip_blocks_8 :: "enum_ip_type rgl_block list" where
  "ip_blocks_8 =
    [Case 64 [(46, St 46), (58, St 62)] [(48, 57, St 65), (97, 102, St 60), (65, 70, St 60)],
     Case 65 [(46, St 46), (58, St 62)] [(48, 57, St 61), (97, 102, St 61), (65, 70, St 61)],
     Case 66 [(46, St 46), (53, St 67), (58, St 62)] [(48, 52, St 64), (97, 102, St 59), (65, 70,
       St 59), (54, 57, St 68)],
     Case 67 [(46, St 46), (58, St 62)] [(48, 53, St 65), (97, 102, St 60), (65, 70, St 60), (54,
       57, St 60)],
     Case 68 [(46, St 46), (58, St 62)] [(48, 57, St 60), (97, 102, St 60), (65, 70, St 60)],
     Case 69 [(46, St 46), (58, St 62)] [(48, 57, St 68), (97, 102, St 59), (65, 70, St 59)],
     Trans 63 [ip_type_ipv6] 249,
     Case 249 [] [(48, 57, Tr 86), (97, 102, Tr 86), (65, 70, Tr 86)],
     Case 70 [(58, St 62)] [(48, 57, St 59), (97, 102, St 59), (65, 70, St 59)]]"

definition ip_blocks_9 :: "enum_ip_type rgl_block list" where
  "ip_blocks_9 =
    [Trans 54 [ip_type_ipv6] 250,
     Case 250 [(48, Tr 91), (49, Tr 92), (50, Tr 93)] [(51, 57, Tr 94), (97, 102, Tr 95), (65, 70,
       Tr 95)],
     Trans 91 [ip_type_ipv6] 251,
     Case 251 [(46, St 46), (58, St 71)] [(48, 57, Tr 276), (97, 102, Tr 276), (65, 70, Tr 276)],
     Trans 276 [ip_type_ipv6] 252,
     Case 252 [(58, St 71)] [(48, 57, Tr 278), (97, 102, Tr 278), (65, 70, Tr 278)],
     Trans 278 [ip_type_ipv6] 253,
     Case 253 [(58, St 71)] [(48, 57, Tr 279), (97, 102, Tr 279), (65, 70, Tr 279)],
     Trans 279 [ip_type_ipv6] 254,
     Case 254 [(58, St 71)] [],
     Case 71 [] [(48, 57, Tr 86), (97, 102, Tr 86), (65, 70, Tr 86)],
     Trans 92 [ip_type_ipv6] 255,
     Case 255 [(46, St 46), (58, St 71)] [(48, 57, Tr 280), (97, 102, Tr 276), (65, 70, Tr 276)]]"

definition ip_blocks_10 :: "enum_ip_type rgl_block list" where
  "ip_blocks_10 =
    [Trans 280 [ip_type_ipv6] 256,
     Case 256 [(46, St 46), (58, St 71)] [(48, 57, Tr 281), (97, 102, Tr 278), (65, 70, Tr 278)],
     Trans 281 [ip_type_ipv6] 257,
     Case 257 [(46, St 46), (58, St 71)] [(48, 57, Tr 279), (97, 102, Tr 279), (65, 70, Tr 279)],
     Trans 93 [ip_type_ipv6] 258,
     Case 258 [(46, St 46), (53, Tr 282), (58, St 71)] [(48, 52, Tr 280), (97, 102, Tr 276), (65,
       70, Tr 276), (54, 57, Tr 283)],
     Trans 282 [ip_type_ipv6] 259,
     Case 259 [(46, St 46), (58, St 71)] [(48, 53, Tr 281), (97, 102, Tr 278), (65, 70, Tr 278),
       (54, 57, Tr 278)],
     Trans 283 [ip_type_ipv6] 260,
     Case 260 [(46, St 46), (58, St 71)] [(48, 57, Tr 278), (97, 102, Tr 278), (65, 70, Tr 278)],
     Trans 94 [ip_type_ipv6] 261]"

definition ip_blocks_11 :: "enum_ip_type rgl_block list" where
  "ip_blocks_11 =
    [Case 261 [(46, St 46), (58, St 71)] [(48, 57, Tr 283), (97, 102, Tr 276), (65, 70, Tr 276)],
     Trans 95 [ip_type_ipv6] 262,
     Case 262 [(58, St 71)] [(48, 57, Tr 276), (97, 102, Tr 276), (65, 70, Tr 276)],
     Trans 48 [ip_type_ipv6] 263,
     Case 263 [(48, Tr 96), (49, Tr 97), (50, Tr 98)] [(51, 57, Tr 99), (97, 102, Tr 100), (65, 70,
       Tr 100)],
     Trans 96 [ip_type_ipv6] 264,
     Case 264 [(46, St 46), (58, St 72)] [(48, 57, Tr 284), (97, 102, Tr 284), (65, 70, Tr 284)],
     Trans 284 [ip_type_ipv6] 265,
     Case 265 [(58, St 72)] [(48, 57, Tr 286), (97, 102, Tr 286), (65, 70, Tr 286)],
     Trans 286 [ip_type_ipv6] 266,
     Case 266 [(58, St 72)] [(48, 57, Tr 287), (97, 102, Tr 287), (65, 70, Tr 287)],
     Trans 287 [ip_type_ipv6] 267,
     Case 267 [(58, St 72)] []]"

definition ip_blocks_12 :: "enum_ip_type rgl_block list" where
  "ip_blocks_12 =
    [Case 72 [(48, Tr 91), (49, Tr 92), (50, Tr 93)] [(51, 57, Tr 94), (97, 102, Tr 95), (65, 70, Tr 95)],
     Trans 97 [ip_type_ipv6] 268,
     Case 268 [(46, St 46), (58, St 72)] [(48, 57, Tr 288), (97, 102, Tr 284), (65, 70, Tr 284)],
     Trans 288 [ip_type_ipv6] 269,
     Case 269 [(46, St 46), (58, St 72)] [(48, 57, Tr 289), (97, 102, Tr 286), (65, 70, Tr 286)],
     Trans 289 [ip_type_ipv6] 270,
     Case 270 [(46, St 46), (58, St 72)] [(48, 57, Tr 287), (97, 102, Tr 287), (65, 70, Tr 287)],
     Trans 98 [ip_type_ipv6] 271,
     Case 271 [(46, St 46), (53, Tr 290), (58, St 72)] [(48, 52, Tr 288), (97, 102, Tr 284), (65,
       70, Tr 284), (54, 57, Tr 291)],
     Trans 290 [ip_type_ipv6] 272,
     Case 272 [(46, St 46), (58, St 72)] [(48, 53, Tr 289), (97, 102, Tr 286), (65, 70, Tr 286),
       (54, 57, Tr 286)]]"

definition ip_blocks_13 :: "enum_ip_type rgl_block list" where
  "ip_blocks_13 =
    [Trans 291 [ip_type_ipv6] 273,
     Case 273 [(46, St 46), (58, St 72)] [(48, 57, Tr 286), (97, 102, Tr 286), (65, 70, Tr 286)],
     Trans 99 [ip_type_ipv6] 274,
     Case 274 [(46, St 46), (58, St 72)] [(48, 57, Tr 291), (97, 102, Tr 284), (65, 70, Tr 284)],
     Trans 100 [ip_type_ipv6] 275,
     Case 275 [(58, St 72)] [(48, 57, Tr 284), (97, 102, Tr 284), (65, 70, Tr 284)],
     Trans 42 [ip_type_ipv6] 276,
     Case 276 [(48, Tr 101), (49, Tr 102), (50, Tr 103)] [(51, 57, Tr 104), (97, 102, Tr 105), (65,
       70, Tr 105)],
     Trans 101 [ip_type_ipv6] 277,
     Case 277 [(46, St 46), (58, St 73)] [(48, 57, Tr 292), (97, 102, Tr 292), (65, 70, Tr 292)],
     Trans 292 [ip_type_ipv6] 278,
     Case 278 [(58, St 73)] [(48, 57, Tr 294), (97, 102, Tr 294), (65, 70, Tr 294)],
     Trans 294 [ip_type_ipv6] 279]"

definition ip_blocks_14 :: "enum_ip_type rgl_block list" where
  "ip_blocks_14 =
    [Case 279 [(58, St 73)] [(48, 57, Tr 295), (97, 102, Tr 295), (65, 70, Tr 295)],
     Trans 295 [ip_type_ipv6] 280,
     Case 280 [(58, St 73)] [],
     Case 73 [(48, Tr 96), (49, Tr 97), (50, Tr 98)] [(51, 57, Tr 99), (97, 102, Tr 100), (65, 70,
       Tr 100)],
     Trans 102 [ip_type_ipv6] 281,
     Case 281 [(46, St 46), (58, St 73)] [(48, 57, Tr 296), (97, 102, Tr 292), (65, 70, Tr 292)],
     Trans 296 [ip_type_ipv6] 282,
     Case 282 [(46, St 46), (58, St 73)] [(48, 57, Tr 297), (97, 102, Tr 294), (65, 70, Tr 294)],
     Trans 297 [ip_type_ipv6] 283,
     Case 283 [(46, St 46), (58, St 73)] [(48, 57, Tr 295), (97, 102, Tr 295), (65, 70, Tr 295)],
     Trans 103 [ip_type_ipv6] 284,
     Case 284 [(46, St 46), (53, Tr 298), (58, St 73)] [(48, 52, Tr 296), (97, 102, Tr 292), (65,
       70, Tr 292), (54, 57, Tr 299)]]"

definition ip_blocks_15 :: "enum_ip_type rgl_block list" where
  "ip_blocks_15 =
    [Trans 298 [ip_type_ipv6] 285,
     Case 285 [(46, St 46), (58, St 73)] [(48, 53, Tr 297), (97, 102, Tr 294), (65, 70, Tr 294),
       (54, 57, Tr 294)],
     Trans 299 [ip_type_ipv6] 286,
     Case 286 [(46, St 46), (58, St 73)] [(48, 57, Tr 294), (97, 102, Tr 294), (65, 70, Tr 294)],
     Trans 104 [ip_type_ipv6] 287,
     Case 287 [(46, St 46), (58, St 73)] [(48, 57, Tr 299), (97, 102, Tr 292), (65, 70, Tr 292)],
     Trans 105 [ip_type_ipv6] 288,
     Case 288 [(58, St 73)] [(48, 57, Tr 292), (97, 102, Tr 292), (65, 70, Tr 292)],
     Trans 36 [ip_type_ipv6] 289,
     Case 289 [(48, Tr 106), (49, Tr 107), (50, Tr 108)] [(51, 57, Tr 109), (97, 102, Tr 110), (65,
       70, Tr 110)],
     Trans 106 [ip_type_ipv6] 290,
     Case 290 [(46, St 46), (58, St 74)] [(48, 57, Tr 300), (97, 102, Tr 300), (65, 70, Tr 300)]]"

definition ip_blocks_16 :: "enum_ip_type rgl_block list" where
  "ip_blocks_16 =
    [Trans 300 [ip_type_ipv6] 291,
     Case 291 [(58, St 74)] [(48, 57, Tr 302), (97, 102, Tr 302), (65, 70, Tr 302)],
     Trans 302 [ip_type_ipv6] 292,
     Case 292 [(58, St 74)] [(48, 57, Tr 303), (97, 102, Tr 303), (65, 70, Tr 303)],
     Trans 303 [ip_type_ipv6] 293,
     Case 293 [(58, St 74)] [],
     Case 74 [(48, Tr 101), (49, Tr 102), (50, Tr 103)] [(51, 57, Tr 104), (97, 102, Tr 105), (65,
       70, Tr 105)],
     Trans 107 [ip_type_ipv6] 294,
     Case 294 [(46, St 46), (58, St 74)] [(48, 57, Tr 304), (97, 102, Tr 300), (65, 70, Tr 300)],
     Trans 304 [ip_type_ipv6] 295,
     Case 295 [(46, St 46), (58, St 74)] [(48, 57, Tr 305), (97, 102, Tr 302), (65, 70, Tr 302)],
     Trans 305 [ip_type_ipv6] 296,
     Case 296 [(46, St 46), (58, St 74)] [(48, 57, Tr 303), (97, 102, Tr 303), (65, 70, Tr 303)]]"

definition ip_blocks_17 :: "enum_ip_type rgl_block list" where
  "ip_blocks_17 =
    [Trans 108 [ip_type_ipv6] 297,
     Case 297 [(46, St 46), (53, Tr 306), (58, St 74)] [(48, 52, Tr 304), (97, 102, Tr 300), (65,
       70, Tr 300), (54, 57, Tr 307)],
     Trans 306 [ip_type_ipv6] 298,
     Case 298 [(46, St 46), (58, St 74)] [(48, 53, Tr 305), (97, 102, Tr 302), (65, 70, Tr 302),
       (54, 57, Tr 302)],
     Trans 307 [ip_type_ipv6] 299,
     Case 299 [(46, St 46), (58, St 74)] [(48, 57, Tr 302), (97, 102, Tr 302), (65, 70, Tr 302)],
     Trans 109 [ip_type_ipv6] 300,
     Case 300 [(46, St 46), (58, St 74)] [(48, 57, Tr 307), (97, 102, Tr 300), (65, 70, Tr 300)],
     Trans 110 [ip_type_ipv6] 301,
     Case 301 [(58, St 74)] [(48, 57, Tr 300), (97, 102, Tr 300), (65, 70, Tr 300)],
     Trans 30 [ip_type_ipv6] 302]"

definition ip_blocks_18 :: "enum_ip_type rgl_block list" where
  "ip_blocks_18 =
    [Case 302 [(48, Tr 116), (49, Tr 117), (50, Tr 118)] [(51, 57, Tr 119), (97, 102, Tr 120), (65,
       70, Tr 120)],
     Trans 116 [ip_type_ipv6] 303,
     Case 303 [(46, St 46), (58, St 75)] [(48, 57, Tr 308), (97, 102, Tr 308), (65, 70, Tr 308)],
     Trans 308 [ip_type_ipv6] 304,
     Case 304 [(58, St 75)] [(48, 57, Tr 310), (97, 102, Tr 310), (65, 70, Tr 310)],
     Trans 310 [ip_type_ipv6] 305,
     Case 305 [(58, St 75)] [(48, 57, Tr 311), (97, 102, Tr 311), (65, 70, Tr 311)],
     Trans 311 [ip_type_ipv6] 306,
     Case 306 [(58, St 75)] [],
     Case 75 [(48, Tr 106), (49, Tr 107), (50, Tr 108)] [(51, 57, Tr 109), (97, 102, Tr 110), (65,
       70, Tr 110)],
     Trans 117 [ip_type_ipv6] 307,
     Case 307 [(46, St 46), (58, St 75)] [(48, 57, Tr 312), (97, 102, Tr 308), (65, 70, Tr 308)]]"

definition ip_blocks_19 :: "enum_ip_type rgl_block list" where
  "ip_blocks_19 =
    [Trans 312 [ip_type_ipv6] 308,
     Case 308 [(46, St 46), (58, St 75)] [(48, 57, Tr 313), (97, 102, Tr 310), (65, 70, Tr 310)],
     Trans 313 [ip_type_ipv6] 309,
     Case 309 [(46, St 46), (58, St 75)] [(48, 57, Tr 311), (97, 102, Tr 311), (65, 70, Tr 311)],
     Trans 118 [ip_type_ipv6] 310,
     Case 310 [(46, St 46), (53, Tr 314), (58, St 75)] [(48, 52, Tr 312), (97, 102, Tr 308), (65,
       70, Tr 308), (54, 57, Tr 315)],
     Trans 314 [ip_type_ipv6] 311,
     Case 311 [(46, St 46), (58, St 75)] [(48, 53, Tr 313), (97, 102, Tr 310), (65, 70, Tr 310),
       (54, 57, Tr 310)],
     Trans 315 [ip_type_ipv6] 312,
     Case 312 [(46, St 46), (58, St 75)] [(48, 57, Tr 310), (97, 102, Tr 310), (65, 70, Tr 310)],
     Trans 119 [ip_type_ipv6] 313]"

definition ip_blocks_20 :: "enum_ip_type rgl_block list" where
  "ip_blocks_20 =
    [Case 313 [(46, St 46), (58, St 75)] [(48, 57, Tr 315), (97, 102, Tr 308), (65, 70, Tr 308)],
     Trans 120 [ip_type_ipv6] 314,
     Case 314 [(58, St 75)] [(48, 57, Tr 308), (97, 102, Tr 308), (65, 70, Tr 308)],
     Case 76 [(46, St 3), (58, St 19)] [(48, 57, St 77), (97, 102, St 16), (65, 70, St 16)],
     Case 77 [(46, St 3), (58, St 19)] [(48, 57, St 78), (97, 102, St 17), (65, 70, St 17)],
     Case 78 [(46, St 3), (58, St 19)] [(48, 57, St 18), (97, 102, St 18), (65, 70, St 18)],
     Case 79 [(46, St 3), (53, St 80), (58, St 19)] [(48, 52, St 77), (97, 102, St 16), (65, 70,
       St 16), (54, 57, St 81)],
     Case 80 [(46, St 3), (58, St 19)] [(48, 53, St 78), (97, 102, St 17), (65, 70, St 17), (54,
       57, St 17)]]"

definition ip_blocks_21 :: "enum_ip_type rgl_block list" where
  "ip_blocks_21 =
    [Case 81 [(46, St 3), (58, St 19)] [(48, 57, St 17), (97, 102, St 17), (65, 70, St 17)],
     Case 82 [(46, St 3), (58, St 19)] [(48, 57, St 81), (97, 102, St 16), (65, 70, St 16)],
     Case 83 [(58, Tr 115)] [],
     Trans 115 [ip_type_ipv6] 315,
     Case 315 [(48, Tr 316), (49, Tr 317), (50, Tr 318)] [(51, 57, Tr 319), (97, 102, Tr 320), (65,
       70, Tr 320)],
     Trans 316 [ip_type_ipv6] 316,
     Case 316 [(46, St 46), (58, St 84)] [(48, 57, Tr 321), (97, 102, Tr 321), (65, 70, Tr 321)],
     Trans 321 [ip_type_ipv6] 317,
     Case 317 [(58, St 84)] [(48, 57, Tr 323), (97, 102, Tr 323), (65, 70, Tr 323)],
     Trans 323 [ip_type_ipv6] 318,
     Case 318 [(58, St 84)] [(48, 57, Tr 324), (97, 102, Tr 324), (65, 70, Tr 324)],
     Trans 324 [ip_type_ipv6] 319,
     Case 319 [(58, St 84)] []]"

definition ip_blocks_22 :: "enum_ip_type rgl_block list" where
  "ip_blocks_22 =
    [Case 84 [(48, Tr 116), (49, Tr 117), (50, Tr 118)] [(51, 57, Tr 119), (97, 102, Tr 120), (65,
       70, Tr 120)],
     Trans 317 [ip_type_ipv6] 320,
     Case 320 [(46, St 46), (58, St 84)] [(48, 57, Tr 325), (97, 102, Tr 321), (65, 70, Tr 321)],
     Trans 325 [ip_type_ipv6] 321,
     Case 321 [(46, St 46), (58, St 84)] [(48, 57, Tr 326), (97, 102, Tr 323), (65, 70, Tr 323)],
     Trans 326 [ip_type_ipv6] 322,
     Case 322 [(46, St 46), (58, St 84)] [(48, 57, Tr 324), (97, 102, Tr 324), (65, 70, Tr 324)],
     Trans 318 [ip_type_ipv6] 323,
     Case 323 [(46, St 46), (53, Tr 327), (58, St 84)] [(48, 52, Tr 325), (97, 102, Tr 321), (65,
       70, Tr 321), (54, 57, Tr 328)],
     Trans 327 [ip_type_ipv6] 324,
     Case 324 [(46, St 46), (58, St 84)] [(48, 53, Tr 326), (97, 102, Tr 323), (65, 70, Tr 323),
       (54, 57, Tr 323)]]"

definition ip_blocks_23 :: "enum_ip_type rgl_block list" where
  "ip_blocks_23 =
    [Trans 328 [ip_type_ipv6] 325,
     Case 325 [(46, St 46), (58, St 84)] [(48, 57, Tr 323), (97, 102, Tr 323), (65, 70, Tr 323)],
     Trans 319 [ip_type_ipv6] 326,
     Case 326 [(46, St 46), (58, St 84)] [(48, 57, Tr 328), (97, 102, Tr 321), (65, 70, Tr 321)],
     Trans 320 [ip_type_ipv6] 327,
     Case 327 [(58, St 84)] [(48, 57, Tr 321), (97, 102, Tr 321), (65, 70, Tr 321)],
     Case 85 [(58, St 19)] [(48, 57, St 16), (97, 102, St 16), (65, 70, St 16)],
     Case 86 [(58, St 222)] [(48, 57, St 87), (97, 102, St 87), (65, 70, St 87)],
     Case 87 [(58, St 91)] [(48, 57, St 88), (97, 102, St 88), (65, 70, St 88)],
     Case 88 [(58, St 91)] [(48, 57, St 89), (97, 102, St 89), (65, 70, St 89)],
     Case 89 [(58, St 91)] [(48, 57, St 90), (97, 102, St 90), (65, 70, St 90)]]"

definition ip_blocks_24 :: "enum_ip_type rgl_block list" where
  "ip_blocks_24 =
    [Case 90 [(58, St 91)] [],
     Case 91 [(58, St 208)] [(48, 57, St 92), (97, 102, St 92), (65, 70, St 92)],
     Case 92 [(58, St 96)] [(48, 57, St 93), (97, 102, St 93), (65, 70, St 93)],
     Case 93 [(58, St 96)] [(48, 57, St 94), (97, 102, St 94), (65, 70, St 94)],
     Case 94 [(58, St 96)] [(48, 57, St 95), (97, 102, St 95), (65, 70, St 95)],
     Case 95 [(58, St 96)] [],
     Case 96 [(58, St 194)] [(48, 57, St 97), (97, 102, St 97), (65, 70, St 97)],
     Case 97 [(58, St 101)] [(48, 57, St 98), (97, 102, St 98), (65, 70, St 98)],
     Case 98 [(58, St 101)] [(48, 57, St 99), (97, 102, St 99), (65, 70, St 99)],
     Case 99 [(58, St 101)] [(48, 57, St 100), (97, 102, St 100), (65, 70, St 100)],
     Case 100 [(58, St 101)] []]"

definition ip_blocks_25 :: "enum_ip_type rgl_block list" where
  "ip_blocks_25 =
    [Case 101 [(58, St 180)] [(48, 57, St 102), (97, 102, St 102), (65, 70, St 102)],
     Case 102 [(58, St 106)] [(48, 57, St 103), (97, 102, St 103), (65, 70, St 103)],
     Case 103 [(58, St 106)] [(48, 57, St 104), (97, 102, St 104), (65, 70, St 104)],
     Case 104 [(58, St 106)] [(48, 57, St 105), (97, 102, St 105), (65, 70, St 105)],
     Case 105 [(58, St 106)] [],
     Case 106 [(58, St 166)] [(48, 57, St 107), (97, 102, St 107), (65, 70, St 107)],
     Case 107 [(58, St 111)] [(48, 57, St 108), (97, 102, St 108), (65, 70, St 108)],
     Case 108 [(58, St 111)] [(48, 57, St 109), (97, 102, St 109), (65, 70, St 109)],
     Case 109 [(58, St 111)] [(48, 57, St 110), (97, 102, St 110), (65, 70, St 110)],
     Case 110 [(58, St 111)] []]"

definition ip_blocks_26 :: "enum_ip_type rgl_block list" where
  "ip_blocks_26 =
    [Case 111 [(58, St 152)] [(48, 57, St 112), (97, 102, St 112), (65, 70, St 112)],
     Case 112 [(58, St 116)] [(48, 57, St 113), (97, 102, St 113), (65, 70, St 113)],
     Case 113 [(58, St 116)] [(48, 57, St 114), (97, 102, St 114), (65, 70, St 114)],
     Case 114 [(58, St 116)] [(48, 57, St 115), (97, 102, St 115), (65, 70, St 115)],
     Case 115 [(58, St 116)] [],
     Case 116 [(48, St 117), (49, St 143), (50, St 146), (58, St 150)] [(51, 57, St 149), (97, 102,
       St 151), (65, 70, St 151)],
     Case 117 [(46, St 118), (58, St 139)] [(48, 57, St 136), (97, 102, St 136), (65, 70, St 136)],
     Case 118 [(48, St 119), (49, St 132), (50, St 134)] [(51, 57, St 133)],
     Case 119 [(46, St 120)] [],
     Case 120 [(48, St 121), (49, St 128), (50, St 130)] [(51, 57, St 129)],
     Case 121 [(46, St 122)] []]"

definition ip_blocks_27 :: "enum_ip_type rgl_block list" where
  "ip_blocks_27 =
    [Case 122 [(48, St 123), (49, St 124), (50, St 126)] [(51, 57, St 125)],
     Case 123 [(93, Tr 180)] [],
     Case 124 [(93, Tr 180)] [(48, 57, St 125)],
     Case 125 [(93, Tr 180)] [(48, 57, St 123)],
     Case 126 [(53, St 127), (93, Tr 180)] [(54, 57, St 123), (48, 52, St 125)],
     Case 127 [(93, Tr 180)] [(48, 53, St 123)],
     Case 128 [(46, St 122)] [(48, 57, St 129)],
     Case 129 [(46, St 122)] [(48, 57, St 121)],
     Case 130 [(46, St 122), (53, St 131)] [(54, 57, St 121), (48, 52, St 129)],
     Case 131 [(46, St 122)] [(48, 53, St 121)],
     Case 132 [(46, St 120)] [(48, 57, St 133)],
     Case 133 [(46, St 120)] [(48, 57, St 119)],
     Case 134 [(46, St 120), (53, St 135)] [(54, 57, St 119), (48, 52, St 133)],
     Case 135 [(46, St 120)] [(48, 53, St 119)]]"

definition ip_blocks_28 :: "enum_ip_type rgl_block list" where
  "ip_blocks_28 =
    [Case 136 [(58, St 139)] [(48, 57, St 137), (97, 102, St 137), (65, 70, St 137)],
     Case 137 [(58, St 139)] [(48, 57, St 138), (97, 102, St 138), (65, 70, St 138)],
     Case 138 [(58, St 139)] [],
     Case 139 [(58, St 123)] [(48, 57, St 140), (97, 102, St 140), (65, 70, St 140)],
     Case 140 [(93, Tr 180)] [(48, 57, St 141), (97, 102, St 141), (65, 70, St 141)],
     Case 141 [(93, Tr 180)] [(48, 57, St 142), (97, 102, St 142), (65, 70, St 142)],
     Case 142 [(93, Tr 180)] [(48, 57, St 123), (97, 102, St 123), (65, 70, St 123)],
     Case 143 [(46, St 118), (58, St 139)] [(48, 57, St 144), (97, 102, St 136), (65, 70, St 136)],
     Case 144 [(46, St 118), (58, St 139)] [(48, 57, St 145), (97, 102, St 137), (65, 70, St 137)],
     Case 145 [(46, St 118), (58, St 139)] [(48, 57, St 138), (97, 102, St 138), (65, 70, St 138)]]"

definition ip_blocks_29 :: "enum_ip_type rgl_block list" where
  "ip_blocks_29 =
    [Case 146 [(46, St 118), (53, St 147), (58, St 139)] [(48, 52, St 144), (97, 102, St 136), (65,
       70, St 136), (54, 57, St 148)],
     Case 147 [(46, St 118), (58, St 139)] [(48, 53, St 145), (97, 102, St 137), (65, 70, St 137),
       (54, 57, St 137)],
     Case 148 [(46, St 118), (58, St 139)] [(48, 57, St 137), (97, 102, St 137), (65, 70, St 137)],
     Case 149 [(46, St 118), (58, St 139)] [(48, 57, St 148), (97, 102, St 136), (65, 70, St 136)],
     Case 150 [(93, Tr 180)] [(48, 57, St 140), (97, 102, St 140), (65, 70, St 140)],
     Case 151 [(58, St 139)] [(48, 57, St 136), (97, 102, St 136), (65, 70, St 136)],
     Case 152 [(48, St 153), (49, St 158), (50, St 161), (93, Tr 180)] [(51, 57, St 164), (97, 102,
       St 165), (65, 70, St 165)],
     Case 153 [(46, St 118), (58, St 157), (93, Tr 180)] [(48, 57, St 154), (97, 102, St 154), (65,
       70, St 154)]]"

definition ip_blocks_30 :: "enum_ip_type rgl_block list" where
  "ip_blocks_30 =
    [Case 154 [(58, St 157), (93, Tr 180)] [(48, 57, St 155), (97, 102, St 155), (65, 70, St 155)],
     Case 155 [(58, St 157), (93, Tr 180)] [(48, 57, St 156), (97, 102, St 156), (65, 70, St 156)],
     Case 156 [(58, St 157), (93, Tr 180)] [],
     Case 157 [] [(48, 57, St 140), (97, 102, St 140), (65, 70, St 140)],
     Case 158 [(46, St 118), (58, St 157), (93, Tr 180)] [(48, 57, St 159), (97, 102, St 154), (65,
       70, St 154)],
     Case 159 [(46, St 118), (58, St 157), (93, Tr 180)] [(48, 57, St 160), (97, 102, St 155), (65,
       70, St 155)],
     Case 160 [(46, St 118), (58, St 157), (93, Tr 180)] [(48, 57, St 156), (97, 102, St 156), (65,
       70, St 156)],
     Case 161 [(46, St 118), (53, St 162), (58, St 157), (93, Tr 180)] [(48, 52, St 159), (97, 102,
       St 154), (65, 70, St 154), (54, 57, St 163)]]"

definition ip_blocks_31 :: "enum_ip_type rgl_block list" where
  "ip_blocks_31 =
    [Case 162 [(46, St 118), (58, St 157), (93, Tr 180)] [(48, 53, St 160), (97, 102, St 155), (65,
       70, St 155), (54, 57, St 155)],
     Case 163 [(46, St 118), (58, St 157), (93, Tr 180)] [(48, 57, St 155), (97, 102, St 155), (65,
       70, St 155)],
     Case 164 [(46, St 118), (58, St 157), (93, Tr 180)] [(48, 57, St 163), (97, 102, St 154), (65,
       70, St 154)],
     Case 165 [(58, St 157), (93, Tr 180)] [(48, 57, St 154), (97, 102, St 154), (65, 70, St 154)],
     Case 166 [(48, St 167), (49, St 172), (50, St 175), (93, Tr 180)] [(51, 57, St 178), (97, 102,
       St 179), (65, 70, St 179)],
     Case 167 [(46, St 118), (58, St 171), (93, Tr 180)] [(48, 57, St 168), (97, 102, St 168), (65,
       70, St 168)],
     Case 168 [(58, St 171), (93, Tr 180)] [(48, 57, St 169), (97, 102, St 169), (65, 70, St 169)],
     Case 169 [(58, St 171), (93, Tr 180)] [(48, 57, St 170), (97, 102, St 170), (65, 70, St 170)]]"

definition ip_blocks_32 :: "enum_ip_type rgl_block list" where
  "ip_blocks_32 =
    [Case 170 [(58, St 171), (93, Tr 180)] [],
     Case 171 [(48, St 153), (49, St 158), (50, St 161)] [(51, 57, St 164), (97, 102, St 165), (65,
       70, St 165)],
     Case 172 [(46, St 118), (58, St 171), (93, Tr 180)] [(48, 57, St 173), (97, 102, St 168), (65,
       70, St 168)],
     Case 173 [(46, St 118), (58, St 171), (93, Tr 180)] [(48, 57, St 174), (97, 102, St 169), (65,
       70, St 169)],
     Case 174 [(46, St 118), (58, St 171), (93, Tr 180)] [(48, 57, St 170), (97, 102, St 170), (65,
       70, St 170)],
     Case 175 [(46, St 118), (53, St 176), (58, St 171), (93, Tr 180)] [(48, 52, St 173), (97, 102,
       St 168), (65, 70, St 168), (54, 57, St 177)],
     Case 176 [(46, St 118), (58, St 171), (93, Tr 180)] [(48, 53, St 174), (97, 102, St 169), (65,
       70, St 169), (54, 57, St 169)],
     Case 177 [(46, St 118), (58, St 171), (93, Tr 180)] [(48, 57, St 169), (97, 102, St 169), (65,
       70, St 169)]]"

definition ip_blocks_33 :: "enum_ip_type rgl_block list" where
  "ip_blocks_33 =
    [Case 178 [(46, St 118), (58, St 171), (93, Tr 180)] [(48, 57, St 177), (97, 102, St 168), (65,
       70, St 168)],
     Case 179 [(58, St 171), (93, Tr 180)] [(48, 57, St 168), (97, 102, St 168), (65, 70, St 168)],
     Case 180 [(48, St 181), (49, St 186), (50, St 189), (93, Tr 180)] [(51, 57, St 192), (97, 102,
       St 193), (65, 70, St 193)],
     Case 181 [(46, St 118), (58, St 185), (93, Tr 180)] [(48, 57, St 182), (97, 102, St 182), (65,
       70, St 182)],
     Case 182 [(58, St 185), (93, Tr 180)] [(48, 57, St 183), (97, 102, St 183), (65, 70, St 183)],
     Case 183 [(58, St 185), (93, Tr 180)] [(48, 57, St 184), (97, 102, St 184), (65, 70, St 184)],
     Case 184 [(58, St 185), (93, Tr 180)] [],
     Case 185 [(48, St 167), (49, St 172), (50, St 175)] [(51, 57, St 178), (97, 102, St 179), (65,
       70, St 179)]]"

definition ip_blocks_34 :: "enum_ip_type rgl_block list" where
  "ip_blocks_34 =
    [Case 186 [(46, St 118), (58, St 185), (93, Tr 180)] [(48, 57, St 187), (97, 102, St 182), (65,
       70, St 182)],
     Case 187 [(46, St 118), (58, St 185), (93, Tr 180)] [(48, 57, St 188), (97, 102, St 183), (65,
       70, St 183)],
     Case 188 [(46, St 118), (58, St 185), (93, Tr 180)] [(48, 57, St 184), (97, 102, St 184), (65,
       70, St 184)],
     Case 189 [(46, St 118), (53, St 190), (58, St 185), (93, Tr 180)] [(48, 52, St 187), (97, 102,
       St 182), (65, 70, St 182), (54, 57, St 191)],
     Case 190 [(46, St 118), (58, St 185), (93, Tr 180)] [(48, 53, St 188), (97, 102, St 183), (65,
       70, St 183), (54, 57, St 183)],
     Case 191 [(46, St 118), (58, St 185), (93, Tr 180)] [(48, 57, St 183), (97, 102, St 183), (65,
       70, St 183)],
     Case 192 [(46, St 118), (58, St 185), (93, Tr 180)] [(48, 57, St 191), (97, 102, St 182), (65,
       70, St 182)]]"

definition ip_blocks_35 :: "enum_ip_type rgl_block list" where
  "ip_blocks_35 =
    [Case 193 [(58, St 185), (93, Tr 180)] [(48, 57, St 182), (97, 102, St 182), (65, 70, St 182)],
     Case 194 [(48, St 195), (49, St 200), (50, St 203), (93, Tr 180)] [(51, 57, St 206), (97, 102,
       St 207), (65, 70, St 207)],
     Case 195 [(46, St 118), (58, St 199), (93, Tr 180)] [(48, 57, St 196), (97, 102, St 196), (65,
       70, St 196)],
     Case 196 [(58, St 199), (93, Tr 180)] [(48, 57, St 197), (97, 102, St 197), (65, 70, St 197)],
     Case 197 [(58, St 199), (93, Tr 180)] [(48, 57, St 198), (97, 102, St 198), (65, 70, St 198)],
     Case 198 [(58, St 199), (93, Tr 180)] [],
     Case 199 [(48, St 181), (49, St 186), (50, St 189)] [(51, 57, St 192), (97, 102, St 193), (65,
       70, St 193)],
     Case 200 [(46, St 118), (58, St 199), (93, Tr 180)] [(48, 57, St 201), (97, 102, St 196), (65,
       70, St 196)]]"

definition ip_blocks_36 :: "enum_ip_type rgl_block list" where
  "ip_blocks_36 =
    [Case 201 [(46, St 118), (58, St 199), (93, Tr 180)] [(48, 57, St 202), (97, 102, St 197), (65,
       70, St 197)],
     Case 202 [(46, St 118), (58, St 199), (93, Tr 180)] [(48, 57, St 198), (97, 102, St 198), (65,
       70, St 198)],
     Case 203 [(46, St 118), (53, St 204), (58, St 199), (93, Tr 180)] [(48, 52, St 201), (97, 102,
       St 196), (65, 70, St 196), (54, 57, St 205)],
     Case 204 [(46, St 118), (58, St 199), (93, Tr 180)] [(48, 53, St 202), (97, 102, St 197), (65,
       70, St 197), (54, 57, St 197)],
     Case 205 [(46, St 118), (58, St 199), (93, Tr 180)] [(48, 57, St 197), (97, 102, St 197), (65,
       70, St 197)],
     Case 206 [(46, St 118), (58, St 199), (93, Tr 180)] [(48, 57, St 205), (97, 102, St 196), (65,
       70, St 196)],
     Case 207 [(58, St 199), (93, Tr 180)] [(48, 57, St 196), (97, 102, St 196), (65, 70, St 196)]]"

definition ip_blocks_37 :: "enum_ip_type rgl_block list" where
  "ip_blocks_37 =
    [Case 208 [(48, St 209), (49, St 214), (50, St 217), (93, Tr 180)] [(51, 57, St 220), (97, 102,
       St 221), (65, 70, St 221)],
     Case 209 [(46, St 118), (58, St 213), (93, Tr 180)] [(48, 57, St 210), (97, 102, St 210), (65,
       70, St 210)],
     Case 210 [(58, St 213), (93, Tr 180)] [(48, 57, St 211), (97, 102, St 211), (65, 70, St 211)],
     Case 211 [(58, St 213), (93, Tr 180)] [(48, 57, St 212), (97, 102, St 212), (65, 70, St 212)],
     Case 212 [(58, St 213), (93, Tr 180)] [],
     Case 213 [(48, St 195), (49, St 200), (50, St 203)] [(51, 57, St 206), (97, 102, St 207), (65,
       70, St 207)],
     Case 214 [(46, St 118), (58, St 213), (93, Tr 180)] [(48, 57, St 215), (97, 102, St 210), (65,
       70, St 210)],
     Case 215 [(46, St 118), (58, St 213), (93, Tr 180)] [(48, 57, St 216), (97, 102, St 211), (65,
       70, St 211)]]"

definition ip_blocks_38 :: "enum_ip_type rgl_block list" where
  "ip_blocks_38 =
    [Case 216 [(46, St 118), (58, St 213), (93, Tr 180)] [(48, 57, St 212), (97, 102, St 212), (65,
       70, St 212)],
     Case 217 [(46, St 118), (53, St 218), (58, St 213), (93, Tr 180)] [(48, 52, St 215), (97, 102,
       St 210), (65, 70, St 210), (54, 57, St 219)],
     Case 218 [(46, St 118), (58, St 213), (93, Tr 180)] [(48, 53, St 216), (97, 102, St 211), (65,
       70, St 211), (54, 57, St 211)],
     Case 219 [(46, St 118), (58, St 213), (93, Tr 180)] [(48, 57, St 211), (97, 102, St 211), (65,
       70, St 211)],
     Case 220 [(46, St 118), (58, St 213), (93, Tr 180)] [(48, 57, St 219), (97, 102, St 210), (65,
       70, St 210)],
     Case 221 [(58, St 213), (93, Tr 180)] [(48, 57, St 210), (97, 102, St 210), (65, 70, St 210)],
     Case 222 [(58, St 223)] [],
     Case 223 [(48, St 224), (49, St 229), (50, St 232), (93, Tr 180)] [(51, 57, St 235), (97, 102,
       St 236), (65, 70, St 236)]]"

definition ip_blocks_39 :: "enum_ip_type rgl_block list" where
  "ip_blocks_39 =
    [Case 224 [(46, St 118), (58, St 228), (93, Tr 180)] [(48, 57, St 225), (97, 102, St 225), (65,
       70, St 225)],
     Case 225 [(58, St 228), (93, Tr 180)] [(48, 57, St 226), (97, 102, St 226), (65, 70, St 226)],
     Case 226 [(58, St 228), (93, Tr 180)] [(48, 57, St 227), (97, 102, St 227), (65, 70, St 227)],
     Case 227 [(58, St 228), (93, Tr 180)] [],
     Case 228 [(48, St 209), (49, St 214), (50, St 217)] [(51, 57, St 220), (97, 102, St 221), (65,
       70, St 221)],
     Case 229 [(46, St 118), (58, St 228), (93, Tr 180)] [(48, 57, St 230), (97, 102, St 225), (65,
       70, St 225)],
     Case 230 [(46, St 118), (58, St 228), (93, Tr 180)] [(48, 57, St 231), (97, 102, St 226), (65,
       70, St 226)],
     Case 231 [(46, St 118), (58, St 228), (93, Tr 180)] [(48, 57, St 227), (97, 102, St 227), (65,
       70, St 227)]]"

definition ip_blocks_40 :: "enum_ip_type rgl_block list" where
  "ip_blocks_40 =
    [Case 232 [(46, St 118), (53, St 233), (58, St 228), (93, Tr 180)] [(48, 52, St 230), (97, 102,
       St 225), (65, 70, St 225), (54, 57, St 234)],
     Case 233 [(46, St 118), (58, St 228), (93, Tr 180)] [(48, 53, St 231), (97, 102, St 226), (65,
       70, St 226), (54, 57, St 226)],
     Case 234 [(46, St 118), (58, St 228), (93, Tr 180)] [(48, 57, St 226), (97, 102, St 226), (65,
       70, St 226)],
     Case 235 [(46, St 118), (58, St 228), (93, Tr 180)] [(48, 57, St 234), (97, 102, St 225), (65,
       70, St 225)],
     Case 236 [(58, St 228), (93, Tr 180)] [(48, 57, St 225), (97, 102, St 225), (65, 70, St 225)]]"

definition ip_blocks :: "enum_ip_type rgl_block list" where
  "ip_blocks =
     ip_blocks_1 @ ip_blocks_2 @ ip_blocks_3 @ ip_blocks_4 @ ip_blocks_5 @ ip_blocks_6 @
     ip_blocks_7 @ ip_blocks_8 @ ip_blocks_9 @ ip_blocks_10 @ ip_blocks_11 @ ip_blocks_12 @
     ip_blocks_13 @ ip_blocks_14 @ ip_blocks_15 @ ip_blocks_16 @ ip_blocks_17 @ ip_blocks_18 @
     ip_blocks_19 @ ip_blocks_20 @ ip_blocks_21 @ ip_blocks_22 @ ip_blocks_23 @ ip_blocks_24 @
     ip_blocks_25 @ ip_blocks_26 @ ip_blocks_27 @ ip_blocks_28 @ ip_blocks_29 @ ip_blocks_30 @
     ip_blocks_31 @ ip_blocks_32 @ ip_blocks_33 @ ip_blocks_34 @ ip_blocks_35 @ ip_blocks_36 @
     ip_blocks_37 @ ip_blocks_38 @ ip_blocks_39 @ ip_blocks_40"

lemmas ip_blocks_1_case = arg_cong [where f = "\<lambda>p. rgl_case p s" for s, OF ip_blocks_1_def, unfolded rgl_case.simps]

lemmas ip_blocks_1_trans = arg_cong [where f = "\<lambda>p. rgl_trans p s" for s, OF ip_blocks_1_def, unfolded rgl_trans.simps]

lemmas ip_blocks_2_case = arg_cong [where f = "\<lambda>p. rgl_case p s" for s, OF ip_blocks_2_def, unfolded rgl_case.simps]

lemmas ip_blocks_2_trans = arg_cong [where f = "\<lambda>p. rgl_trans p s" for s, OF ip_blocks_2_def, unfolded rgl_trans.simps]

lemmas ip_blocks_3_case = arg_cong [where f = "\<lambda>p. rgl_case p s" for s, OF ip_blocks_3_def, unfolded rgl_case.simps]

lemmas ip_blocks_3_trans = arg_cong [where f = "\<lambda>p. rgl_trans p s" for s, OF ip_blocks_3_def, unfolded rgl_trans.simps]

lemmas ip_blocks_4_case = arg_cong [where f = "\<lambda>p. rgl_case p s" for s, OF ip_blocks_4_def, unfolded rgl_case.simps]

lemmas ip_blocks_4_trans = arg_cong [where f = "\<lambda>p. rgl_trans p s" for s, OF ip_blocks_4_def, unfolded rgl_trans.simps]

lemmas ip_blocks_5_case = arg_cong [where f = "\<lambda>p. rgl_case p s" for s, OF ip_blocks_5_def, unfolded rgl_case.simps]

lemmas ip_blocks_5_trans = arg_cong [where f = "\<lambda>p. rgl_trans p s" for s, OF ip_blocks_5_def, unfolded rgl_trans.simps]

lemmas ip_blocks_6_case = arg_cong [where f = "\<lambda>p. rgl_case p s" for s, OF ip_blocks_6_def, unfolded rgl_case.simps]

lemmas ip_blocks_6_trans = arg_cong [where f = "\<lambda>p. rgl_trans p s" for s, OF ip_blocks_6_def, unfolded rgl_trans.simps]

lemmas ip_blocks_7_case = arg_cong [where f = "\<lambda>p. rgl_case p s" for s, OF ip_blocks_7_def, unfolded rgl_case.simps]

lemmas ip_blocks_7_trans = arg_cong [where f = "\<lambda>p. rgl_trans p s" for s, OF ip_blocks_7_def, unfolded rgl_trans.simps]

lemmas ip_blocks_8_case = arg_cong [where f = "\<lambda>p. rgl_case p s" for s, OF ip_blocks_8_def, unfolded rgl_case.simps]

lemmas ip_blocks_8_trans = arg_cong [where f = "\<lambda>p. rgl_trans p s" for s, OF ip_blocks_8_def, unfolded rgl_trans.simps]

lemmas ip_blocks_9_case = arg_cong [where f = "\<lambda>p. rgl_case p s" for s, OF ip_blocks_9_def, unfolded rgl_case.simps]

lemmas ip_blocks_9_trans = arg_cong [where f = "\<lambda>p. rgl_trans p s" for s, OF ip_blocks_9_def, unfolded rgl_trans.simps]

lemmas ip_blocks_10_case = arg_cong [where f = "\<lambda>p. rgl_case p s" for s, OF ip_blocks_10_def, unfolded rgl_case.simps]

lemmas ip_blocks_10_trans = arg_cong [where f = "\<lambda>p. rgl_trans p s" for s, OF ip_blocks_10_def, unfolded rgl_trans.simps]

lemmas ip_blocks_11_case = arg_cong [where f = "\<lambda>p. rgl_case p s" for s, OF ip_blocks_11_def, unfolded rgl_case.simps]

lemmas ip_blocks_11_trans = arg_cong [where f = "\<lambda>p. rgl_trans p s" for s, OF ip_blocks_11_def, unfolded rgl_trans.simps]

lemmas ip_blocks_12_case = arg_cong [where f = "\<lambda>p. rgl_case p s" for s, OF ip_blocks_12_def, unfolded rgl_case.simps]

lemmas ip_blocks_12_trans = arg_cong [where f = "\<lambda>p. rgl_trans p s" for s, OF ip_blocks_12_def, unfolded rgl_trans.simps]

lemmas ip_blocks_13_case = arg_cong [where f = "\<lambda>p. rgl_case p s" for s, OF ip_blocks_13_def, unfolded rgl_case.simps]

lemmas ip_blocks_13_trans = arg_cong [where f = "\<lambda>p. rgl_trans p s" for s, OF ip_blocks_13_def, unfolded rgl_trans.simps]

lemmas ip_blocks_14_case = arg_cong [where f = "\<lambda>p. rgl_case p s" for s, OF ip_blocks_14_def, unfolded rgl_case.simps]

lemmas ip_blocks_14_trans = arg_cong [where f = "\<lambda>p. rgl_trans p s" for s, OF ip_blocks_14_def, unfolded rgl_trans.simps]

lemmas ip_blocks_15_case = arg_cong [where f = "\<lambda>p. rgl_case p s" for s, OF ip_blocks_15_def, unfolded rgl_case.simps]

lemmas ip_blocks_15_trans = arg_cong [where f = "\<lambda>p. rgl_trans p s" for s, OF ip_blocks_15_def, unfolded rgl_trans.simps]

lemmas ip_blocks_16_case = arg_cong [where f = "\<lambda>p. rgl_case p s" for s, OF ip_blocks_16_def, unfolded rgl_case.simps]

lemmas ip_blocks_16_trans = arg_cong [where f = "\<lambda>p. rgl_trans p s" for s, OF ip_blocks_16_def, unfolded rgl_trans.simps]

lemmas ip_blocks_17_case = arg_cong [where f = "\<lambda>p. rgl_case p s" for s, OF ip_blocks_17_def, unfolded rgl_case.simps]

lemmas ip_blocks_17_trans = arg_cong [where f = "\<lambda>p. rgl_trans p s" for s, OF ip_blocks_17_def, unfolded rgl_trans.simps]

lemmas ip_blocks_18_case = arg_cong [where f = "\<lambda>p. rgl_case p s" for s, OF ip_blocks_18_def, unfolded rgl_case.simps]

lemmas ip_blocks_18_trans = arg_cong [where f = "\<lambda>p. rgl_trans p s" for s, OF ip_blocks_18_def, unfolded rgl_trans.simps]

lemmas ip_blocks_19_case = arg_cong [where f = "\<lambda>p. rgl_case p s" for s, OF ip_blocks_19_def, unfolded rgl_case.simps]

lemmas ip_blocks_19_trans = arg_cong [where f = "\<lambda>p. rgl_trans p s" for s, OF ip_blocks_19_def, unfolded rgl_trans.simps]

lemmas ip_blocks_20_case = arg_cong [where f = "\<lambda>p. rgl_case p s" for s, OF ip_blocks_20_def, unfolded rgl_case.simps]

lemmas ip_blocks_20_trans = arg_cong [where f = "\<lambda>p. rgl_trans p s" for s, OF ip_blocks_20_def, unfolded rgl_trans.simps]

lemmas ip_blocks_21_case = arg_cong [where f = "\<lambda>p. rgl_case p s" for s, OF ip_blocks_21_def, unfolded rgl_case.simps]

lemmas ip_blocks_21_trans = arg_cong [where f = "\<lambda>p. rgl_trans p s" for s, OF ip_blocks_21_def, unfolded rgl_trans.simps]

lemmas ip_blocks_22_case = arg_cong [where f = "\<lambda>p. rgl_case p s" for s, OF ip_blocks_22_def, unfolded rgl_case.simps]

lemmas ip_blocks_22_trans = arg_cong [where f = "\<lambda>p. rgl_trans p s" for s, OF ip_blocks_22_def, unfolded rgl_trans.simps]

lemmas ip_blocks_23_case = arg_cong [where f = "\<lambda>p. rgl_case p s" for s, OF ip_blocks_23_def, unfolded rgl_case.simps]

lemmas ip_blocks_23_trans = arg_cong [where f = "\<lambda>p. rgl_trans p s" for s, OF ip_blocks_23_def, unfolded rgl_trans.simps]

lemmas ip_blocks_24_case = arg_cong [where f = "\<lambda>p. rgl_case p s" for s, OF ip_blocks_24_def, unfolded rgl_case.simps]

lemmas ip_blocks_24_trans = arg_cong [where f = "\<lambda>p. rgl_trans p s" for s, OF ip_blocks_24_def, unfolded rgl_trans.simps]

lemmas ip_blocks_25_case = arg_cong [where f = "\<lambda>p. rgl_case p s" for s, OF ip_blocks_25_def, unfolded rgl_case.simps]

lemmas ip_blocks_25_trans = arg_cong [where f = "\<lambda>p. rgl_trans p s" for s, OF ip_blocks_25_def, unfolded rgl_trans.simps]

lemmas ip_blocks_26_case = arg_cong [where f = "\<lambda>p. rgl_case p s" for s, OF ip_blocks_26_def, unfolded rgl_case.simps]

lemmas ip_blocks_26_trans = arg_cong [where f = "\<lambda>p. rgl_trans p s" for s, OF ip_blocks_26_def, unfolded rgl_trans.simps]

lemmas ip_blocks_27_case = arg_cong [where f = "\<lambda>p. rgl_case p s" for s, OF ip_blocks_27_def, unfolded rgl_case.simps]

lemmas ip_blocks_27_trans = arg_cong [where f = "\<lambda>p. rgl_trans p s" for s, OF ip_blocks_27_def, unfolded rgl_trans.simps]

lemmas ip_blocks_28_case = arg_cong [where f = "\<lambda>p. rgl_case p s" for s, OF ip_blocks_28_def, unfolded rgl_case.simps]

lemmas ip_blocks_28_trans = arg_cong [where f = "\<lambda>p. rgl_trans p s" for s, OF ip_blocks_28_def, unfolded rgl_trans.simps]

lemmas ip_blocks_29_case = arg_cong [where f = "\<lambda>p. rgl_case p s" for s, OF ip_blocks_29_def, unfolded rgl_case.simps]

lemmas ip_blocks_29_trans = arg_cong [where f = "\<lambda>p. rgl_trans p s" for s, OF ip_blocks_29_def, unfolded rgl_trans.simps]

lemmas ip_blocks_30_case = arg_cong [where f = "\<lambda>p. rgl_case p s" for s, OF ip_blocks_30_def, unfolded rgl_case.simps]

lemmas ip_blocks_30_trans = arg_cong [where f = "\<lambda>p. rgl_trans p s" for s, OF ip_blocks_30_def, unfolded rgl_trans.simps]

lemmas ip_blocks_31_case = arg_cong [where f = "\<lambda>p. rgl_case p s" for s, OF ip_blocks_31_def, unfolded rgl_case.simps]

lemmas ip_blocks_31_trans = arg_cong [where f = "\<lambda>p. rgl_trans p s" for s, OF ip_blocks_31_def, unfolded rgl_trans.simps]

lemmas ip_blocks_32_case = arg_cong [where f = "\<lambda>p. rgl_case p s" for s, OF ip_blocks_32_def, unfolded rgl_case.simps]

lemmas ip_blocks_32_trans = arg_cong [where f = "\<lambda>p. rgl_trans p s" for s, OF ip_blocks_32_def, unfolded rgl_trans.simps]

lemmas ip_blocks_33_case = arg_cong [where f = "\<lambda>p. rgl_case p s" for s, OF ip_blocks_33_def, unfolded rgl_case.simps]

lemmas ip_blocks_33_trans = arg_cong [where f = "\<lambda>p. rgl_trans p s" for s, OF ip_blocks_33_def, unfolded rgl_trans.simps]

lemmas ip_blocks_34_case = arg_cong [where f = "\<lambda>p. rgl_case p s" for s, OF ip_blocks_34_def, unfolded rgl_case.simps]

lemmas ip_blocks_34_trans = arg_cong [where f = "\<lambda>p. rgl_trans p s" for s, OF ip_blocks_34_def, unfolded rgl_trans.simps]

lemmas ip_blocks_35_case = arg_cong [where f = "\<lambda>p. rgl_case p s" for s, OF ip_blocks_35_def, unfolded rgl_case.simps]

lemmas ip_blocks_35_trans = arg_cong [where f = "\<lambda>p. rgl_trans p s" for s, OF ip_blocks_35_def, unfolded rgl_trans.simps]

lemmas ip_blocks_36_case = arg_cong [where f = "\<lambda>p. rgl_case p s" for s, OF ip_blocks_36_def, unfolded rgl_case.simps]

lemmas ip_blocks_36_trans = arg_cong [where f = "\<lambda>p. rgl_trans p s" for s, OF ip_blocks_36_def, unfolded rgl_trans.simps]

lemmas ip_blocks_37_case = arg_cong [where f = "\<lambda>p. rgl_case p s" for s, OF ip_blocks_37_def, unfolded rgl_case.simps]

lemmas ip_blocks_37_trans = arg_cong [where f = "\<lambda>p. rgl_trans p s" for s, OF ip_blocks_37_def, unfolded rgl_trans.simps]

lemmas ip_blocks_38_case = arg_cong [where f = "\<lambda>p. rgl_case p s" for s, OF ip_blocks_38_def, unfolded rgl_case.simps]

lemmas ip_blocks_38_trans = arg_cong [where f = "\<lambda>p. rgl_trans p s" for s, OF ip_blocks_38_def, unfolded rgl_trans.simps]

lemmas ip_blocks_39_case = arg_cong [where f = "\<lambda>p. rgl_case p s" for s, OF ip_blocks_39_def, unfolded rgl_case.simps]

lemmas ip_blocks_39_trans = arg_cong [where f = "\<lambda>p. rgl_trans p s" for s, OF ip_blocks_39_def, unfolded rgl_trans.simps]

lemmas ip_blocks_40_case = arg_cong [where f = "\<lambda>p. rgl_case p s" for s, OF ip_blocks_40_def, unfolded rgl_case.simps]

lemmas ip_blocks_40_trans = arg_cong [where f = "\<lambda>p. rgl_trans p s" for s, OF ip_blocks_40_def, unfolded rgl_trans.simps]

lemmas ip_blocks_case =
  arg_cong [where f = "\<lambda>p. rgl_case p s" for s, OF ip_blocks_def, unfolded rgl_case_append]
  ip_blocks_1_case ip_blocks_2_case ip_blocks_3_case ip_blocks_4_case ip_blocks_5_case
  ip_blocks_6_case ip_blocks_7_case ip_blocks_8_case ip_blocks_9_case ip_blocks_10_case
  ip_blocks_11_case ip_blocks_12_case ip_blocks_13_case ip_blocks_14_case ip_blocks_15_case
  ip_blocks_16_case ip_blocks_17_case ip_blocks_18_case ip_blocks_19_case ip_blocks_20_case
  ip_blocks_21_case ip_blocks_22_case ip_blocks_23_case ip_blocks_24_case ip_blocks_25_case
  ip_blocks_26_case ip_blocks_27_case ip_blocks_28_case ip_blocks_29_case ip_blocks_30_case
  ip_blocks_31_case ip_blocks_32_case ip_blocks_33_case ip_blocks_34_case ip_blocks_35_case
  ip_blocks_36_case ip_blocks_37_case ip_blocks_38_case ip_blocks_39_case ip_blocks_40_case

lemmas ip_blocks_trans =
  arg_cong [where f = "\<lambda>p. rgl_trans p s" for s, OF ip_blocks_def, unfolded rgl_trans_append]
  ip_blocks_1_trans ip_blocks_2_trans ip_blocks_3_trans ip_blocks_4_trans ip_blocks_5_trans
  ip_blocks_6_trans ip_blocks_7_trans ip_blocks_8_trans ip_blocks_9_trans ip_blocks_10_trans
  ip_blocks_11_trans ip_blocks_12_trans ip_blocks_13_trans ip_blocks_14_trans ip_blocks_15_trans
  ip_blocks_16_trans ip_blocks_17_trans ip_blocks_18_trans ip_blocks_19_trans ip_blocks_20_trans
  ip_blocks_21_trans ip_blocks_22_trans ip_blocks_23_trans ip_blocks_24_trans ip_blocks_25_trans
  ip_blocks_26_trans ip_blocks_27_trans ip_blocks_28_trans ip_blocks_29_trans ip_blocks_30_trans
  ip_blocks_31_trans ip_blocks_32_trans ip_blocks_33_trans ip_blocks_34_trans ip_blocks_35_trans
  ip_blocks_36_trans ip_blocks_37_trans ip_blocks_38_trans ip_blocks_39_trans ip_blocks_40_trans

end
