(* ===== verification/Ip_Grammar.thy ===== *)
theory Ip_Grammar
  imports Grammar_Rx
begin

text \<open>
  The IP address grammar of ext/utils/grammar_ip.rl, rule by rule, and \<open>IPv6reference\<close> of
  ext/utils/ip_utils.rl.  \<open>HEXDIG\<close> takes the letters of both cases as two ranges.
\<close>

definition DIGIT :: rx where
  "DIGIT = Ch 48 57"

definition HEXDIG :: rx where
  "HEXDIG = Alt DIGIT (Alt (Ch 65 70) (Ch 97 102))"

definition dec_octet :: rx where
  "dec_octet =
     Alt DIGIT
    (Alt (Cat (Ch 0x31 0x39) DIGIT)
    (Alt (Cat (Lit CHR ''1'') (Rep 2 2 DIGIT))
    (Alt (Cat (Lit CHR ''2'') (Cat (Ch 0x30 0x34) DIGIT))
         (Cat (Lit CHR ''2'') (Cat (Lit CHR ''5'') (Ch 0x30 0x35))))))"

definition IPv4address :: rx where
  "IPv4address =
     Cat dec_octet (Cat (Lit CHR ''.'') (Cat dec_octet (Cat (Lit CHR ''.'')
    (Cat dec_octet (Cat (Lit CHR ''.'') dec_octet)))))"

definition h16 :: rx where
  "h16 = Rep 1 4 HEXDIG"

definition h16_colon :: rx where
  "h16_colon = Cat h16 (Lit CHR '':'')"

definition ls32 :: rx where
  "ls32 = Alt (Cat h16 (Cat (Lit CHR '':'') h16)) IPv4address"

definition dcolon :: rx where
  "dcolon = Cat (Lit CHR '':'') (Lit CHR '':'')"

definition IPv6address :: rx where
  "IPv6address =
     Alt (Cat (Rep 6 6 h16_colon) ls32)
    (Alt (Cat dcolon (Cat (Rep 5 5 h16_colon) ls32))
    (Alt (Cat (Opt h16) (Cat dcolon (Cat (Rep 4 4 h16_colon) ls32)))
    (Alt (Cat (Opt (Cat (Rep 0 1 h16_colon) h16)) (Cat dcolon (Cat (Rep 3 3 h16_colon) ls32)))
    (Alt (Cat (Opt (Cat (Rep 0 2 h16_colon) h16)) (Cat dcolon (Cat (Rep 2 2 h16_colon) ls32)))
    (Alt (Cat (Opt (Cat (Rep 0 3 h16_colon) h16)) (Cat dcolon (Cat h16_colon ls32)))
    (Alt (Cat (Opt (Cat (Rep 0 4 h16_colon) h16)) (Cat dcolon ls32))
    (Alt (Cat (Opt (Cat (Rep 0 5 h16_colon) h16)) (Cat dcolon h16))
         (Cat (Opt (Cat (Rep 0 6 h16_colon) h16)) dcolon))))))))"

definition IPv6reference :: rx where
  "IPv6reference = Cat (Lit CHR ''['') (Cat IPv6address (Lit CHR '']''))"

lemma Lit_codes:
  "schar CHR ''.'' = 46" "schar CHR '':'' = 58" "schar CHR ''['' = 91" "schar CHR '']'' = 93"
  "schar CHR ''1'' = 49" "schar CHR ''2'' = 50" "schar CHR ''5'' = 53"
  by (simp_all add: schar_def)

lemmas ip_grammar_defs =
  DIGIT_def HEXDIG_def dec_octet_def IPv4address_def h16_def h16_colon_def ls32_def dcolon_def
  IPv6address_def IPv6reference_def

text \<open>
  Derivatives and emptiness of the named rules, unfolded one name at a time, so that the terms
  of a computation keep the names of the rules they have not entered.
\<close>

lemma pd_ip_rules:
  "pd c (DIGIT # k) = pd c (Ch 48 57 # k)"
  "pd c (HEXDIG # k) = pd c (Alt DIGIT (Alt (Ch 65 70) (Ch 97 102)) # k)"
  "pd c (h16 # k) = pd c (Rep 1 4 HEXDIG # k)"
  "pd c (h16_colon # k) = pd c (h16 # Ch 58 58 # k)"
  "pd c (dcolon # k) = pd c (Ch 58 58 # Ch 58 58 # k)"
  by (simp_all add: DIGIT_def HEXDIG_def h16_def h16_colon_def dcolon_def Lit_codes)

lemmas pd_ip_unfold =
  arg_cong [where f = "\<lambda>r. pd c (r # k)" for c k, OF dec_octet_def, unfolded Lit_codes]
  arg_cong [where f = "\<lambda>r. pd c (r # k)" for c k, OF IPv4address_def, unfolded Lit_codes]
  arg_cong [where f = "\<lambda>r. pd c (r # k)" for c k, OF ls32_def, unfolded Lit_codes]
  arg_cong [where f = "\<lambda>r. pd c (r # k)" for c k, OF IPv6address_def, unfolded Lit_codes]
  arg_cong [where f = "\<lambda>r. pd c (r # k)" for c k, OF IPv6reference_def, unfolded Lit_codes]

lemma null_ip_rules:
  "\<not> rx_null DIGIT" "\<not> rx_null HEXDIG" "\<not> rx_null dec_octet" "\<not> rx_null IPv4address"
  "\<not> rx_null h16" "\<not> rx_null h16_colon" "\<not> rx_null ls32" "\<not> rx_null dcolon"
  "\<not> rx_null IPv6address" "\<not> rx_null IPv6reference"
  by (simp_all add: ip_grammar_defs)

text \<open>The same for the bounds a derivative looks at.\<close>

lemma first_ip_rules:
  "first_in B (DIGIT # k) = first_in B (Ch 48 57 # k)"
  "first_in B (HEXDIG # k) = first_in B (Alt DIGIT (Alt (Ch 65 70) (Ch 97 102)) # k)"
  "first_in B (h16 # k) = first_in B (Rep 1 4 HEXDIG # k)"
  "first_in B (h16_colon # k) = first_in B (h16 # Ch 58 58 # k)"
  "first_in B (dcolon # k) = first_in B (Ch 58 58 # Ch 58 58 # k)"
  by (simp_all add: DIGIT_def HEXDIG_def h16_def h16_colon_def dcolon_def Lit_codes)

lemmas first_ip_unfold =
  arg_cong [where f = "\<lambda>r. first_in B (r # k)" for B k, OF dec_octet_def, unfolded Lit_codes]
  arg_cong [where f = "\<lambda>r. first_in B (r # k)" for B k, OF IPv4address_def, unfolded Lit_codes]
  arg_cong [where f = "\<lambda>r. first_in B (r # k)" for B k, OF ls32_def, unfolded Lit_codes]
  arg_cong [where f = "\<lambda>r. first_in B (r # k)" for B k, OF IPv6address_def, unfolded Lit_codes]
  arg_cong [where f = "\<lambda>r. first_in B (r # k)" for B k, OF IPv6reference_def, unfolded Lit_codes]

end
