(* ===== verification/Ip_Certificate.thy ===== *)
theory Ip_Certificate
  imports Ip_Automaton Ip_Grammar
begin

text \<open>
  The certificate for the scanner of ext/utils/ip_utils.c: what the three alternatives of its
  \<open>main\<close> rule (IPv4address, IPv6address, IPv6reference) still expect in each state, and the
  check of every row against it, a dozen states at a time.
\<close>

text \<open>
  The \<open>@is_ipv4\<close>, \<open>@is_ipv6\<close> and \<open>@is_ipv6_reference\<close> actions: a transition assigns the type
  of every alternative that is complete after it, and nothing else.
\<close>

definition ip_acts_ok :: "enum_ip_type list \<Rightarrow> residual \<Rightarrow> residual \<Rightarrow> bool" where
  "ip_acts_ok as X Y \<longleftrightarrow>
     as = map snd (filter (\<lambda>(ks, t). stacks_null ks)
            (zip Y [ip_type_ipv4, ip_type_ipv6, ip_type_ipv6_reference]))"

definition ip_expects_1 :: certificate where
  "ip_expects_1 s =
     (if s = 1 then ([-128, 48, 49, 50, 51, 58, 59, 65, 71, 91, 92, 97, 103], [[[[IPv4address]],
        [[IPv6address]], [[IPv6reference]]]])
      else
      if s = 2 then ([-128, 46, 47, 48, 58, 59, 65, 71, 97, 103], [[[[Cat (Ch 46 46) (Cat
        dec_octet (Cat (Ch 46 46) (Cat dec_octet (Cat (Ch 46 46) dec_octet))))]], [[Rep 0 3
        HEXDIG, Ch 58 58, Rep 5 5 h16_colon, ls32], [Rep 0 3 HEXDIG, Cat dcolon (Cat (Rep 4 4
        h16_colon) ls32)], [Rep 0 3 HEXDIG, Cat dcolon (Cat (Rep 3 3 h16_colon) ls32)], [Rep 0 3
        HEXDIG, Ch 58 58, h16, Cat dcolon (Cat (Rep 3 3 h16_colon) ls32)], [Rep 0 3 HEXDIG, Cat
        dcolon (Cat (Rep 2 2 h16_colon) ls32)], [Rep 0 3 HEXDIG, Ch 58 58, Rep 0 1 h16_colon, h16,
        Cat dcolon (Cat (Rep 2 2 h16_colon) ls32)], [Rep 0 3 HEXDIG, Cat dcolon (Cat h16_colon
        ls32)], [Rep 0 3 HEXDIG, Ch 58 58, Rep 0 2 h16_colon, h16, Cat dcolon (Cat h16_colon
        ls32)], [Rep 0 3 HEXDIG, Cat dcolon ls32], [Rep 0 3 HEXDIG, Ch 58 58, Rep 0 3 h16_colon,
        h16, Cat dcolon ls32], [Rep 0 3 HEXDIG, Cat dcolon h16], [Rep 0 3 HEXDIG, Ch 58 58, Rep 0
        4 h16_colon, h16, Cat dcolon h16], [Rep 0 3 HEXDIG, dcolon], [Rep 0 3 HEXDIG, Ch 58 58,
        Rep 0 5 h16_colon, h16, dcolon]], []]])
      else
      if s = 3 then ([-128, 48, 49, 50, 51, 58], [[[[Cat dec_octet (Cat (Ch 46 46) (Cat dec_octet
        (Cat (Ch 46 46) dec_octet)))]], [], []]])
      else
      if s = 4 then ([-128, 46, 47], [[[[Cat (Ch 46 46) (Cat dec_octet (Cat (Ch 46 46)
        dec_octet))]], [], []]])
      else
      if s = 5 then ([-128, 48, 49, 50, 51, 58], [[[[Cat dec_octet (Cat (Ch 46 46) dec_octet)]],
        [], []]])
      else
      if s = 6 then ([-128, 46, 47], [[[[Cat (Ch 46 46) dec_octet]], [], []]])
      else
      if s = 7 then ([-128, 48, 49, 50, 51, 58], [[[[dec_octet]], [], []]])
      else
      if s = 8 then ([-128, 46, 47, 48, 58], [[[[Cat (Ch 46 46) dec_octet], [DIGIT, Cat (Ch 46 46)
        dec_octet], [Rep 2 2 DIGIT, Cat (Ch 46 46) dec_octet]], [], []]])
      else
      if s = 9 then ([-128, 46, 47, 48, 58], [[[[Cat (Ch 46 46) dec_octet], [DIGIT, Cat (Ch 46 46)
        dec_octet]], [], []]])
      else
      if s = 10 then ([-128, 46, 47, 48, 53, 54, 58], [[[[Cat (Ch 46 46) dec_octet], [DIGIT, Cat
        (Ch 46 46) dec_octet], [Cat (Ch 48 52) DIGIT, Cat (Ch 46 46) dec_octet], [Cat (Ch 53 53)
        (Ch 48 53), Cat (Ch 46 46) dec_octet]], [], []]])
      else
      if s = 11 then ([-128, 46, 47, 48, 54], [[[[Cat (Ch 46 46) dec_octet], [Ch 48 53, Cat (Ch 46
        46) dec_octet]], [], []]])
      else
      ([-128, 46, 47, 48, 58], [[[[Cat (Ch 46 46) (Cat dec_octet (Cat (Ch 46 46) dec_octet))],
        [DIGIT, Cat (Ch 46 46) (Cat dec_octet (Cat (Ch 46 46) dec_octet))], [Rep 2 2 DIGIT, Cat
        (Ch 46 46) (Cat dec_octet (Cat (Ch 46 46) dec_octet))]], [], []]]))"

definition ip_expects_2 :: certificate where
  "ip_expects_2 s =
     (if s = 13 then ([-128, 46, 47, 48, 58], [[[[Cat (Ch 46 46) (Cat dec_octet (Cat (Ch 46 46)
        dec_octet))], [DIGIT, Cat (Ch 46 46) (Cat dec_octet (Cat (Ch 46 46) dec_octet))]], [],
        []]])
      else
      if s = 14 then ([-128, 46, 47, 48, 53, 54, 58], [[[[Cat (Ch 46 46) (Cat dec_octet (Cat (Ch
        46 46) dec_octet))], [DIGIT, Cat (Ch 46 46) (Cat dec_octet (Cat (Ch 46 46) dec_octet))],
        [Cat (Ch 48 52) DIGIT, Cat (Ch 46 46) (Cat dec_octet (Cat (Ch 46 46) dec_octet))], [Cat
        (Ch 53 53) (Ch 48 53), Cat (Ch 46 46) (Cat dec_octet (Cat (Ch 46 46) dec_octet))]], [],
        []]])
      else
      if s = 15 then ([-128, 46, 47, 48, 54], [[[[Cat (Ch 46 46) (Cat dec_octet (Cat (Ch 46 46)
        dec_octet))], [Ch 48 53, Cat (Ch 46 46) (Cat dec_octet (Cat (Ch 46 46) dec_octet))]], [],
        []]])
      else
      if s = 16 then ([-128, 48, 58, 59, 65, 71, 97, 103], [[[], [[Rep 0 2 HEXDIG, Ch 58 58, Rep 5
        5 h16_colon, ls32], [Rep 0 2 HEXDIG, Cat dcolon (Cat (Rep 4 4 h16_colon) ls32)], [Rep 0 2
        HEXDIG, Cat dcolon (Cat (Rep 3 3 h16_colon) ls32)], [Rep 0 2 HEXDIG, Ch 58 58, h16, Cat
        dcolon (Cat (Rep 3 3 h16_colon) ls32)], [Rep 0 2 HEXDIG, Cat dcolon (Cat (Rep 2 2
        h16_colon) ls32)], [Rep 0 2 HEXDIG, Ch 58 58, Rep 0 1 h16_colon, h16, Cat dcolon (Cat (Rep
        2 2 h16_colon) ls32)], [Rep 0 2 HEXDIG, Cat dcolon (Cat h16_colon ls32)], [Rep 0 2 HEXDIG,
        Ch 58 58, Rep 0 2 h16_colon, h16, Cat dcolon (Cat h16_colon ls32)], [Rep 0 2 HEXDIG, Cat
        dcolon ls32], [Rep 0 2 HEXDIG, Ch 58 58, Rep 0 3 h16_colon, h16, Cat dcolon ls32], [Rep 0
        2 HEXDIG, Cat dcolon h16], [Rep 0 2 HEXDIG, Ch 58 58, Rep 0 4 h16_colon, h16, Cat dcolon
        h16], [Rep 0 2 HEXDIG, dcolon], [Rep 0 2 HEXDIG, Ch 58 58, Rep 0 5 h16_colon, h16,
        dcolon]], []]])
      else
      if s = 17 then ([-128, 48, 58, 59, 65, 71, 97, 103], [[[], [[Rep 0 1 HEXDIG, Ch 58 58, Rep 5
        5 h16_colon, ls32], [Rep 0 1 HEXDIG, Cat dcolon (Cat (Rep 4 4 h16_colon) ls32)], [Rep 0 1
        HEXDIG, Cat dcolon (Cat (Rep 3 3 h16_colon) ls32)], [Rep 0 1 HEXDIG, Ch 58 58, h16, Cat
        dcolon (Cat (Rep 3 3 h16_colon) ls32)], [Rep 0 1 HEXDIG, Cat dcolon (Cat (Rep 2 2
        h16_colon) ls32)], [Rep 0 1 HEXDIG, Ch 58 58, Rep 0 1 h16_colon, h16, Cat dcolon (Cat (Rep
        2 2 h16_colon) ls32)], [Rep 0 1 HEXDIG, Cat dcolon (Cat h16_colon ls32)], [Rep 0 1 HEXDIG,
        Ch 58 58, Rep 0 2 h16_colon, h16, Cat dcolon (Cat h16_colon ls32)], [Rep 0 1 HEXDIG, Cat
        dcolon ls32], [Rep 0 1 HEXDIG, Ch 58 58, Rep 0 3 h16_colon, h16, Cat dcolon ls32], [Rep 0
        1 HEXDIG, Cat dcolon h16], [Rep 0 1 HEXDIG, Ch 58 58, Rep 0 4 h16_colon, h16, Cat dcolon
        h16], [Rep 0 1 HEXDIG, dcolon], [Rep 0 1 HEXDIG, Ch 58 58, Rep 0 5 h16_colon, h16,
        dcolon]], []]])
      else
      if s = 18 then ([-128, 58, 59], [[[], [[Ch 58 58, Rep 5 5 h16_colon, ls32], [Cat dcolon (Cat
        (Rep 4 4 h16_colon) ls32)], [Cat dcolon (Cat (Rep 3 3 h16_colon) ls32)], [Ch 58 58, h16,
        Cat dcolon (Cat (Rep 3 3 h16_colon) ls32)], [Cat dcolon (Cat (Rep 2 2 h16_colon) ls32)],
        [Ch 58 58, Rep 0 1 h16_colon, h16, Cat dcolon (Cat (Rep 2 2 h16_colon) ls32)], [Cat dcolon
        (Cat h16_colon ls32)], [Ch 58 58, Rep 0 2 h16_colon, h16, Cat dcolon (Cat h16_colon
        ls32)], [Cat dcolon ls32], [Ch 58 58, Rep 0 3 h16_colon, h16, Cat dcolon ls32], [Cat
        dcolon h16], [Ch 58 58, Rep 0 4 h16_colon, h16, Cat dcolon h16], [dcolon], [Ch 58 58, Rep
        0 5 h16_colon, h16, dcolon]], []]])
      else
      if s = 19 then ([-128, 48, 58, 59, 65, 71, 97, 103], [[[], [[Rep 5 5 h16_colon, ls32], [Ch
        58 58, Cat (Rep 4 4 h16_colon) ls32], [Ch 58 58, Cat (Rep 3 3 h16_colon) ls32], [h16, Cat
        dcolon (Cat (Rep 3 3 h16_colon) ls32)], [Ch 58 58, Cat (Rep 2 2 h16_colon) ls32], [Rep 0 1
        h16_colon, h16, Cat dcolon (Cat (Rep 2 2 h16_colon) ls32)], [Ch 58 58, Cat h16_colon
        ls32], [Rep 0 2 h16_colon, h16, Cat dcolon (Cat h16_colon ls32)], [Ch 58 58, ls32], [Rep 0
        3 h16_colon, h16, Cat dcolon ls32], [Ch 58 58, h16], [Rep 0 4 h16_colon, h16, Cat dcolon
        h16], [Ch 58 58], [Rep 0 5 h16_colon, h16, dcolon]], []]])
      else
      if s = 20 then ([-128, 48, 58, 59, 65, 71, 97, 103], [[[], [[Rep 0 3 HEXDIG, Ch 58 58, Rep 4
        4 h16_colon, ls32], [Rep 0 3 HEXDIG, Cat dcolon (Cat (Rep 3 3 h16_colon) ls32)], [Rep 0 3
        HEXDIG, Cat dcolon (Cat (Rep 2 2 h16_colon) ls32)], [Rep 0 3 HEXDIG, Ch 58 58, h16, Cat
        dcolon (Cat (Rep 2 2 h16_colon) ls32)], [Rep 0 3 HEXDIG, Cat dcolon (Cat h16_colon ls32)],
        [Rep 0 3 HEXDIG, Ch 58 58, Rep 0 1 h16_colon, h16, Cat dcolon (Cat h16_colon ls32)], [Rep
        0 3 HEXDIG, Cat dcolon ls32], [Rep 0 3 HEXDIG, Ch 58 58, Rep 0 2 h16_colon, h16, Cat
        dcolon ls32], [Rep 0 3 HEXDIG, Cat dcolon h16], [Rep 0 3 HEXDIG, Ch 58 58, Rep 0 3
        h16_colon, h16, Cat dcolon h16], [Rep 0 3 HEXDIG, dcolon], [Rep 0 3 HEXDIG, Ch 58 58, Rep
        0 4 h16_colon, h16, dcolon]], []]])
      else
      if s = 21 then ([-128, 48, 58, 59, 65, 71, 97, 103], [[[], [[Rep 0 2 HEXDIG, Ch 58 58, Rep 4
        4 h16_colon, ls32], [Rep 0 2 HEXDIG, Cat dcolon (Cat (Rep 3 3 h16_colon) ls32)], [Rep 0 2
        HEXDIG, Cat dcolon (Cat (Rep 2 2 h16_colon) ls32)], [Rep 0 2 HEXDIG, Ch 58 58, h16, Cat
        dcolon (Cat (Rep 2 2 h16_colon) ls32)], [Rep 0 2 HEXDIG, Cat dcolon (Cat h16_colon ls32)],
        [Rep 0 2 HEXDIG, Ch 58 58, Rep 0 1 h16_colon, h16, Cat dcolon (Cat h16_colon ls32)], [Rep
        0 2 HEXDIG, Cat dcolon ls32], [Rep 0 2 HEXDIG, Ch 58 58, Rep 0 2 h16_colon, h16, Cat
        dcolon ls32], [Rep 0 2 HEXDIG, Cat dcolon h16], [Rep 0 2 HEXDIG, Ch 58 58, Rep 0 3
        h16_colon, h16, Cat dcolon h16], [Rep 0 2 HEXDIG, dcolon], [Rep 0 2 HEXDIG, Ch 58 58, Rep
        0 4 h16_colon, h16, dcolon]], []]])
      else
      if s = 22 then ([-128, 48, 58, 59, 65, 71, 97, 103], [[[], [[Rep 0 1 HEXDIG, Ch 58 58, Rep 4
        4 h16_colon, ls32], [Rep 0 1 HEXDIG, Cat dcolon (Cat (Rep 3 3 h16_colon) ls32)], [Rep 0 1
        HEXDIG, Cat dcolon (Cat (Rep 2 2 h16_colon) ls32)], [Rep 0 1 HEXDIG, Ch 58 58, h16, Cat
        dcolon (Cat (Rep 2 2 h16_colon) ls32)], [Rep 0 1 HEXDIG, Cat dcolon (Cat h16_colon ls32)],
        [Rep 0 1 HEXDIG, Ch 58 58, Rep 0 1 h16_colon, h16, Cat dcolon (Cat h16_colon ls32)], [Rep
        0 1 HEXDIG, Cat dcolon ls32], [Rep 0 1 HEXDIG, Ch 58 58, Rep 0 2 h16_colon, h16, Cat
        dcolon ls32], [Rep 0 1 HEXDIG, Cat dcolon h16], [Rep 0 1 HEXDIG, Ch 58 58, Rep 0 3
        h16_colon, h16, Cat dcolon h16], [Rep 0 1 HEXDIG, dcolon], [Rep 0 1 HEXDIG, Ch 58 58, Rep
        0 4 h16_colon, h16, dcolon]], []]])
      else
      if s = 23 then ([-128, 58, 59], [[[], [[Ch 58 58, Rep 4 4 h16_colon, ls32], [Cat dcolon (Cat
        (Rep 3 3 h16_colon) ls32)], [Cat dcolon (Cat (Rep 2 2 h16_colon) ls32)], [Ch 58 58, h16,
        Cat dcolon (Cat (Rep 2 2 h16_colon) ls32)], [Cat dcolon (Cat h16_colon ls32)], [Ch 58 58,
        Rep 0 1 h16_colon, h16, Cat dcolon (Cat h16_colon ls32)], [Cat dcolon ls32], [Ch 58 58,
        Rep 0 2 h16_colon, h16, Cat dcolon ls32], [Cat dcolon h16], [Ch 58 58, Rep 0 3 h16_colon,
        h16, Cat dcolon h16], [dcolon], [Ch 58 58, Rep 0 4 h16_colon, h16, dcolon]], []]])
      else
      ([-128, 48, 58, 59, 65, 71, 97, 103], [[[], [[Rep 4 4 h16_colon, ls32], [Ch 58 58, Cat (Rep
        3 3 h16_colon) ls32], [Ch 58 58, Cat (Rep 2 2 h16_colon) ls32], [h16, Cat dcolon (Cat (Rep
        2 2 h16_colon) ls32)], [Ch 58 58, Cat h16_colon ls32], [Rep 0 1 h16_colon, h16, Cat dcolon
        (Cat h16_colon ls32)], [Ch 58 58, ls32], [Rep 0 2 h16_colon, h16, Cat dcolon ls32], [Ch 58
        58, h16], [Rep 0 3 h16_colon, h16, Cat dcolon h16], [Ch 58 58], [Rep 0 4 h16_colon, h16,
        dcolon]], []]]))"

definition ip_expects_3 :: certificate where
  "ip_expects_3 s =
     (if s = 25 then ([-128, 48, 58, 59, 65, 71, 97, 103], [[[], [[Rep 0 3 HEXDIG, Ch 58 58, Rep 3
        3 h16_colon, ls32], [Rep 0 3 HEXDIG, Cat dcolon (Cat (Rep 2 2 h16_colon) ls32)], [Rep 0 3
        HEXDIG, Cat dcolon (Cat h16_colon ls32)], [Rep 0 3 HEXDIG, Ch 58 58, h16, Cat dcolon (Cat
        h16_colon ls32)], [Rep 0 3 HEXDIG, Cat dcolon ls32], [Rep 0 3 HEXDIG, Ch 58 58, Rep 0 1
        h16_colon, h16, Cat dcolon ls32], [Rep 0 3 HEXDIG, Cat dcolon h16], [Rep 0 3 HEXDIG, Ch 58
        58, Rep 0 2 h16_colon, h16, Cat dcolon h16], [Rep 0 3 HEXDIG, dcolon], [Rep 0 3 HEXDIG, Ch
        58 58, Rep 0 3 h16_colon, h16, dcolon]], []]])
      else
      if s = 26 then ([-128, 48, 58, 59, 65, 71, 97, 103], [[[], [[Rep 0 2 HEXDIG, Ch 58 58, Rep 3
        3 h16_colon, ls32], [Rep 0 2 HEXDIG, Cat dcolon (Cat (Rep 2 2 h16_colon) ls32)], [Rep 0 2
        HEXDIG, Cat dcolon (Cat h16_colon ls32)], [Rep 0 2 HEXDIG, Ch 58 58, h16, Cat dcolon (Cat
        h16_colon ls32)], [Rep 0 2 HEXDIG, Cat dcolon ls32], [Rep 0 2 HEXDIG, Ch 58 58, Rep 0 1
        h16_colon, h16, Cat dcolon ls32], [Rep 0 2 HEXDIG, Cat dcolon h16], [Rep 0 2 HEXDIG, Ch 58
        58, Rep 0 2 h16_colon, h16, Cat dcolon h16], [Rep 0 2 HEXDIG, dcolon], [Rep 0 2 HEXDIG, Ch
        58 58, Rep 0 3 h16_colon, h16, dcolon]], []]])
      else
      if s = 27 then ([-128, 48, 58, 59, 65, 71, 97, 103], [[[], [[Rep 0 1 HEXDIG, Ch 58 58, Rep 3
        3 h16_colon, ls32], [Rep 0 1 HEXDIG, Cat dcolon (Cat (Rep 2 2 h16_colon) ls32)], [Rep 0 1
        HEXDIG, Cat dcolon (Cat h16_colon ls32)], [Rep 0 1 HEXDIG, Ch 58 58, h16, Cat dcolon (Cat
        h16_colon ls32)], [Rep 0 1 HEXDIG, Cat dcolon ls32], [Rep 0 1 HEXDIG, Ch 58 58, Rep 0 1
        h16_colon, h16, Cat dcolon ls32], [Rep 0 1 HEXDIG, Cat dcolon h16], [Rep 0 1 HEXDIG, Ch 58
        58, Rep 0 2 h16_colon, h16, Cat dcolon h16], [Rep 0 1 HEXDIG, dcolon], [Rep 0 1 HEXDIG, Ch
        58 58, Rep 0 3 h16_colon, h16, dcolon]], []]])
      else
      if s = 28 then ([-128, 58, 59], [[[], [[Ch 58 58, Rep 3 3 h16_colon, ls32], [Cat dcolon (Cat
        (Rep 2 2 h16_colon) ls32)], [Cat dcolon (Cat h16_colon ls32)], [Ch 58 58, h16, Cat dcolon
        (Cat h16_colon ls32)], [Cat dcolon ls32], [Ch 58 58, Rep 0 1 h16_colon, h16, Cat dcolon
        ls32], [Cat dcolon h16], [Ch 58 58, Rep 0 2 h16_colon, h16, Cat dcolon h16], [dcolon], [Ch
        58 58, Rep 0 3 h16_colon, h16, dcolon]], []]])
      else
      if s = 29 then ([-128, 48, 58, 59, 65, 71, 97, 103], [[[], [[Rep 3 3 h16_colon, ls32], [Ch
        58 58, Cat (Rep 2 2 h16_colon) ls32], [Ch 58 58, Cat h16_colon ls32], [h16, Cat dcolon
        (Cat h16_colon ls32)], [Ch 58 58, ls32], [Rep 0 1 h16_colon, h16, Cat dcolon ls32], [Ch 58
        58, h16], [Rep 0 2 h16_colon, h16, Cat dcolon h16], [Ch 58 58], [Rep 0 3 h16_colon, h16,
        dcolon]], []]])
      else
      if s = 30 then ([-128, 48, 58, 59, 65, 71, 97, 103], [[[], [[Rep 0 3 HEXDIG, Ch 58 58, Rep 2
        2 h16_colon, ls32], [Rep 0 3 HEXDIG, Cat dcolon (Cat h16_colon ls32)], [Rep 0 3 HEXDIG,
        Cat dcolon ls32], [Rep 0 3 HEXDIG, Ch 58 58, h16, Cat dcolon ls32], [Rep 0 3 HEXDIG, Cat
        dcolon h16], [Rep 0 3 HEXDIG, Ch 58 58, Rep 0 1 h16_colon, h16, Cat dcolon h16], [Rep 0 3
        HEXDIG, dcolon], [Rep 0 3 HEXDIG, Ch 58 58, Rep 0 2 h16_colon, h16, dcolon]], []]])
      else
      if s = 31 then ([-128, 48, 58, 59, 65, 71, 97, 103], [[[], [[Rep 0 2 HEXDIG, Ch 58 58, Rep 2
        2 h16_colon, ls32], [Rep 0 2 HEXDIG, Cat dcolon (Cat h16_colon ls32)], [Rep 0 2 HEXDIG,
        Cat dcolon ls32], [Rep 0 2 HEXDIG, Ch 58 58, h16, Cat dcolon ls32], [Rep 0 2 HEXDIG, Cat
        dcolon h16], [Rep 0 2 HEXDIG, Ch 58 58, Rep 0 1 h16_colon, h16, Cat dcolon h16], [Rep 0 2
        HEXDIG, dcolon], [Rep 0 2 HEXDIG, Ch 58 58, Rep 0 2 h16_colon, h16, dcolon]], []]])
      else
      if s = 32 then ([-128, 48, 58, 59, 65, 71, 97, 103], [[[], [[Rep 0 1 HEXDIG, Ch 58 58, Rep 2
        2 h16_colon, ls32], [Rep 0 1 HEXDIG, Cat dcolon (Cat h16_colon ls32)], [Rep 0 1 HEXDIG,
        Cat dcolon ls32], [Rep 0 1 HEXDIG, Ch 58 58, h16, Cat dcolon ls32], [Rep 0 1 HEXDIG, Cat
        dcolon h16], [Rep 0 1 HEXDIG, Ch 58 58, Rep 0 1 h16_colon, h16, Cat dcolon h16], [Rep 0 1
        HEXDIG, dcolon], [Rep 0 1 HEXDIG, Ch 58 58, Rep 0 2 h16_colon, h16, dcolon]], []]])
      else
      if s = 33 then ([-128, 58, 59], [[[], [[Ch 58 58, Rep 2 2 h16_colon, ls32], [Cat dcolon (Cat
        h16_colon ls32)], [Cat dcolon ls32], [Ch 58 58, h16, Cat dcolon ls32], [Cat dcolon h16],
        [Ch 58 58, Rep 0 1 h16_colon, h16, Cat dcolon h16], [dcolon], [Ch 58 58, Rep 0 2
        h16_colon, h16, dcolon]], []]])
      else
      if s = 34 then ([-128, 48, 58, 59, 65, 71, 97, 103], [[[], [[Rep 2 2 h16_colon, ls32], [Ch
        58 58, Cat h16_colon ls32], [Ch 58 58, ls32], [h16, Cat dcolon ls32], [Ch 58 58, h16],
        [Rep 0 1 h16_colon, h16, Cat dcolon h16], [Ch 58 58], [Rep 0 2 h16_colon, h16, dcolon]],
        []]])
      else
      if s = 35 then ([-128, 48, 58, 59, 65, 71, 97, 103], [[[], [[Rep 0 3 HEXDIG, Ch 58 58,
        h16_colon, ls32], [Rep 0 3 HEXDIG, Cat dcolon ls32], [Rep 0 3 HEXDIG, Cat dcolon h16],
        [Rep 0 3 HEXDIG, Ch 58 58, h16, Cat dcolon h16], [Rep 0 3 HEXDIG, dcolon], [Rep 0 3
        HEXDIG, Ch 58 58, Rep 0 1 h16_colon, h16, dcolon]], []]])
      else
      ([-128, 48, 58, 59, 65, 71, 97, 103], [[[], [[Rep 0 2 HEXDIG, Ch 58 58, h16_colon, ls32],
        [Rep 0 2 HEXDIG, Cat dcolon ls32], [Rep 0 2 HEXDIG, Cat dcolon h16], [Rep 0 2 HEXDIG, Ch
        58 58, h16, Cat dcolon h16], [Rep 0 2 HEXDIG, dcolon], [Rep 0 2 HEXDIG, Ch 58 58, Rep 0 1
        h16_colon, h16, dcolon]], []]]))"

definition ip_expects_4 :: certificate where
  "ip_expects_4 s =
     (if s = 37 then ([-128, 48, 58, 59, 65, 71, 97, 103], [[[], [[Rep 0 1 HEXDIG, Ch 58 58,
        h16_colon, ls32], [Rep 0 1 HEXDIG, Cat dcolon ls32], [Rep 0 1 HEXDIG, Cat dcolon h16],
        [Rep 0 1 HEXDIG, Ch 58 58, h16, Cat dcolon h16], [Rep 0 1 HEXDIG, dcolon], [Rep 0 1
        HEXDIG, Ch 58 58, Rep 0 1 h16_colon, h16, dcolon]], []]])
      else
      if s = 38 then ([-128, 58, 59], [[[], [[Ch 58 58, h16_colon, ls32], [Cat dcolon ls32], [Cat
        dcolon h16], [Ch 58 58, h16, Cat dcolon h16], [dcolon], [Ch 58 58, Rep 0 1 h16_colon, h16,
        dcolon]], []]])
      else
      if s = 39 then ([-128, 48, 58, 59, 65, 71, 97, 103], [[[], [[h16_colon, ls32], [Ch 58 58,
        ls32], [Ch 58 58, h16], [h16, Cat dcolon h16], [Ch 58 58], [Rep 0 1 h16_colon, h16,
        dcolon]], []]])
      else
      if s = 40 then ([-128, 48, 58, 59, 65, 71, 97, 103], [[[], [[Rep 0 3 HEXDIG, Ch 58 58,
        ls32], [Rep 0 3 HEXDIG, Cat dcolon h16], [Rep 0 3 HEXDIG, dcolon], [Rep 0 3 HEXDIG, Ch 58
        58, h16, dcolon]], []]])
      else
      if s = 41 then ([-128, 48, 58, 59, 65, 71, 97, 103], [[[], [[Rep 0 2 HEXDIG, Ch 58 58,
        ls32], [Rep 0 2 HEXDIG, Cat dcolon h16], [Rep 0 2 HEXDIG, dcolon], [Rep 0 2 HEXDIG, Ch 58
        58, h16, dcolon]], []]])
      else
      if s = 42 then ([-128, 48, 58, 59, 65, 71, 97, 103], [[[], [[Rep 0 1 HEXDIG, Ch 58 58,
        ls32], [Rep 0 1 HEXDIG, Cat dcolon h16], [Rep 0 1 HEXDIG, dcolon], [Rep 0 1 HEXDIG, Ch 58
        58, h16, dcolon]], []]])
      else
      if s = 43 then ([-128, 58, 59], [[[], [[Ch 58 58, ls32], [Cat dcolon h16], [dcolon], [Ch 58
        58, h16, dcolon]], []]])
      else
      if s = 44 then ([-128, 48, 49, 50, 51, 58, 59, 65, 71, 97, 103], [[[], [[ls32], [Ch 58 58,
        h16], [Ch 58 58], [h16, dcolon]], []]])
      else
      if s = 45 then ([-128, 46, 47, 48, 58, 59, 65, 71, 97, 103], [[[], [[Rep 0 3 HEXDIG, Cat (Ch
        58 58) h16], [Cat (Ch 46 46) (Cat dec_octet (Cat (Ch 46 46) (Cat dec_octet (Cat (Ch 46 46)
        dec_octet))))], [Rep 0 3 HEXDIG, dcolon]], []]])
      else
      if s = 46 then ([-128, 48, 49, 50, 51, 58], [[[], [[Cat dec_octet (Cat (Ch 46 46) (Cat
        dec_octet (Cat (Ch 46 46) dec_octet)))]], []]])
      else
      if s = 47 then ([-128, 46, 47], [[[], [[Cat (Ch 46 46) (Cat dec_octet (Cat (Ch 46 46)
        dec_octet))]], []]])
      else
      ([-128, 48, 49, 50, 51, 58], [[[], [[Cat dec_octet (Cat (Ch 46 46) dec_octet)]], []]]))"

definition ip_expects_5 :: certificate where
  "ip_expects_5 s =
     (if s = 49 then ([-128, 46, 47], [[[], [[Cat (Ch 46 46) dec_octet]], []]])
      else
      if s = 50 then ([-128, 48, 49, 50, 51, 58], [[[], [[dec_octet]], []]])
      else
      if s = 51 then ([-128, 46, 47, 48, 58], [[[], [[Cat (Ch 46 46) dec_octet], [DIGIT, Cat (Ch
        46 46) dec_octet], [Rep 2 2 DIGIT, Cat (Ch 46 46) dec_octet]], []]])
      else
      if s = 52 then ([-128, 46, 47, 48, 58], [[[], [[Cat (Ch 46 46) dec_octet], [DIGIT, Cat (Ch
        46 46) dec_octet]], []]])
      else
      if s = 53 then ([-128, 46, 47, 48, 53, 54, 58], [[[], [[Cat (Ch 46 46) dec_octet], [DIGIT,
        Cat (Ch 46 46) dec_octet], [Cat (Ch 48 52) DIGIT, Cat (Ch 46 46) dec_octet], [Cat (Ch 53
        53) (Ch 48 53), Cat (Ch 46 46) dec_octet]], []]])
      else
      if s = 54 then ([-128, 46, 47, 48, 54], [[[], [[Cat (Ch 46 46) dec_octet], [Ch 48 53, Cat
        (Ch 46 46) dec_octet]], []]])
      else
      if s = 55 then ([-128, 46, 47, 48, 58], [[[], [[Cat (Ch 46 46) (Cat dec_octet (Cat (Ch 46
        46) dec_octet))], [DIGIT, Cat (Ch 46 46) (Cat dec_octet (Cat (Ch 46 46) dec_octet))], [Rep
        2 2 DIGIT, Cat (Ch 46 46) (Cat dec_octet (Cat (Ch 46 46) dec_octet))]], []]])
      else
      if s = 56 then ([-128, 46, 47, 48, 58], [[[], [[Cat (Ch 46 46) (Cat dec_octet (Cat (Ch 46
        46) dec_octet))], [DIGIT, Cat (Ch 46 46) (Cat dec_octet (Cat (Ch 46 46) dec_octet))]],
        []]])
      else
      if s = 57 then ([-128, 46, 47, 48, 53, 54, 58], [[[], [[Cat (Ch 46 46) (Cat dec_octet (Cat
        (Ch 46 46) dec_octet))], [DIGIT, Cat (Ch 46 46) (Cat dec_octet (Cat (Ch 46 46)
        dec_octet))], [Cat (Ch 48 52) DIGIT, Cat (Ch 46 46) (Cat dec_octet (Cat (Ch 46 46)
        dec_octet))], [Cat (Ch 53 53) (Ch 48 53), Cat (Ch 46 46) (Cat dec_octet (Cat (Ch 46 46)
        dec_octet))]], []]])
      else
      if s = 58 then ([-128, 46, 47, 48, 54], [[[], [[Cat (Ch 46 46) (Cat dec_octet (Cat (Ch 46
        46) dec_octet))], [Ch 48 53, Cat (Ch 46 46) (Cat dec_octet (Cat (Ch 46 46) dec_octet))]],
        []]])
      else
      if s = 59 then ([-128, 48, 58, 59, 65, 71, 97, 103], [[[], [[Rep 0 2 HEXDIG, Cat (Ch 58 58)
        h16], [Rep 0 2 HEXDIG, dcolon]], []]])
      else
      ([-128, 48, 58, 59, 65, 71, 97, 103], [[[], [[Rep 0 1 HEXDIG, Cat (Ch 58 58) h16], [Rep 0 1
        HEXDIG, dcolon]], []]]))"

definition ip_expects_6 :: certificate where
  "ip_expects_6 s =
     (if s = 61 then ([-128, 58, 59], [[[], [[Cat (Ch 58 58) h16], [dcolon]], []]])
      else
      if s = 62 then ([-128, 48, 58, 59, 65, 71, 97, 103], [[[], [[h16], [Ch 58 58]], []]])
      else
      if s = 63 then ([-128, 46, 47, 48, 58, 59, 65, 71, 97, 103], [[[], [[Rep 0 3 HEXDIG, Cat (Ch
        58 58) h16], [Cat (Ch 46 46) (Cat dec_octet (Cat (Ch 46 46) (Cat dec_octet (Cat (Ch 46 46)
        dec_octet))))], [DIGIT, Cat (Ch 46 46) (Cat dec_octet (Cat (Ch 46 46) (Cat dec_octet (Cat
        (Ch 46 46) dec_octet))))], [Rep 2 2 DIGIT, Cat (Ch 46 46) (Cat dec_octet (Cat (Ch 46 46)
        (Cat dec_octet (Cat (Ch 46 46) dec_octet))))], [Rep 0 3 HEXDIG, dcolon]], []]])
      else
      if s = 64 then ([-128, 46, 47, 48, 58, 59, 65, 71, 97, 103], [[[], [[Rep 0 2 HEXDIG, Cat (Ch
        58 58) h16], [Cat (Ch 46 46) (Cat dec_octet (Cat (Ch 46 46) (Cat dec_octet (Cat (Ch 46 46)
        dec_octet))))], [DIGIT, Cat (Ch 46 46) (Cat dec_octet (Cat (Ch 46 46) (Cat dec_octet (Cat
        (Ch 46 46) dec_octet))))], [Rep 0 2 HEXDIG, dcolon]], []]])
      else
      if s = 65 then ([-128, 46, 47, 48, 58, 59, 65, 71, 97, 103], [[[], [[Rep 0 1 HEXDIG, Cat (Ch
        58 58) h16], [Cat (Ch 46 46) (Cat dec_octet (Cat (Ch 46 46) (Cat dec_octet (Cat (Ch 46 46)
        dec_octet))))], [Rep 0 1 HEXDIG, dcolon]], []]])
      else
      if s = 66 then ([-128, 46, 47, 48, 53, 54, 58, 59, 65, 71, 97, 103], [[[], [[Rep 0 3 HEXDIG,
        Cat (Ch 58 58) h16], [Cat (Ch 46 46) (Cat dec_octet (Cat (Ch 46 46) (Cat dec_octet (Cat
        (Ch 46 46) dec_octet))))], [DIGIT, Cat (Ch 46 46) (Cat dec_octet (Cat (Ch 46 46) (Cat
        dec_octet (Cat (Ch 46 46) dec_octet))))], [Cat (Ch 48 52) DIGIT, Cat (Ch 46 46) (Cat
        dec_octet (Cat (Ch 46 46) (Cat dec_octet (Cat (Ch 46 46) dec_octet))))], [Cat (Ch 53 53)
        (Ch 48 53), Cat (Ch 46 46) (Cat dec_octet (Cat (Ch 46 46) (Cat dec_octet (Cat (Ch 46 46)
        dec_octet))))], [Rep 0 3 HEXDIG, dcolon]], []]])
      else
      if s = 67 then ([-128, 46, 47, 48, 54, 58, 59, 65, 71, 97, 103], [[[], [[Rep 0 2 HEXDIG, Cat
        (Ch 58 58) h16], [Cat (Ch 46 46) (Cat dec_octet (Cat (Ch 46 46) (Cat dec_octet (Cat (Ch 46
        46) dec_octet))))], [Ch 48 53, Cat (Ch 46 46) (Cat dec_octet (Cat (Ch 46 46) (Cat
        dec_octet (Cat (Ch 46 46) dec_octet))))], [Rep 0 2 HEXDIG, dcolon]], []]])
      else
      if s = 68 then ([-128, 46, 47, 48, 58, 59, 65, 71, 97, 103], [[[], [[Rep 0 2 HEXDIG, Cat (Ch
        58 58) h16], [Cat (Ch 46 46) (Cat dec_octet (Cat (Ch 46 46) (Cat dec_octet (Cat (Ch 46 46)
        dec_octet))))], [Rep 0 2 HEXDIG, dcolon]], []]])
      else
      if s = 69 then ([-128, 46, 47, 48, 58, 59, 65, 71, 97, 103], [[[], [[Rep 0 3 HEXDIG, Cat (Ch
        58 58) h16], [Cat (Ch 46 46) (Cat dec_octet (Cat (Ch 46 46) (Cat dec_octet (Cat (Ch 46 46)
        dec_octet))))], [DIGIT, Cat (Ch 46 46) (Cat dec_octet (Cat (Ch 46 46) (Cat dec_octet (Cat
        (Ch 46 46) dec_octet))))], [Rep 0 3 HEXDIG, dcolon]], []]])
      else
      if s = 70 then ([-128, 48, 58, 59, 65, 71, 97, 103], [[[], [[Rep 0 3 HEXDIG, Cat (Ch 58 58)
        h16], [Rep 0 3 HEXDIG, dcolon]], []]])
      else
      if s = 71 then ([-128, 48, 58, 65, 71, 97, 103], [[[], [[h16]], []]])
      else
      ([-128, 48, 49, 50, 51, 58, 65, 71, 97, 103], [[[], [[ls32], [h16]], []]]))"

definition ip_expects_7 :: certificate where
  "ip_expects_7 s =
     (if s = 73 then ([-128, 48, 49, 50, 51, 58, 65, 71, 97, 103], [[[], [[h16_colon, ls32],
        [ls32], [h16]], []]])
      else
      if s = 74 then ([-128, 48, 49, 50, 51, 58, 65, 71, 97, 103], [[[], [[Rep 2 2 h16_colon,
        ls32], [h16_colon, ls32], [ls32], [h16]], []]])
      else
      if s = 75 then ([-128, 48, 49, 50, 51, 58, 65, 71, 97, 103], [[[], [[Rep 3 3 h16_colon,
        ls32], [Rep 2 2 h16_colon, ls32], [h16_colon, ls32], [ls32], [h16]], []]])
      else
      if s = 76 then ([-128, 46, 47, 48, 58, 59, 65, 71, 97, 103], [[[[Cat (Ch 46 46) (Cat
        dec_octet (Cat (Ch 46 46) (Cat dec_octet (Cat (Ch 46 46) dec_octet))))], [DIGIT, Cat (Ch
        46 46) (Cat dec_octet (Cat (Ch 46 46) (Cat dec_octet (Cat (Ch 46 46) dec_octet))))], [Rep
        2 2 DIGIT, Cat (Ch 46 46) (Cat dec_octet (Cat (Ch 46 46) (Cat dec_octet (Cat (Ch 46 46)
        dec_octet))))]], [[Rep 0 3 HEXDIG, Ch 58 58, Rep 5 5 h16_colon, ls32], [Rep 0 3 HEXDIG,
        Cat dcolon (Cat (Rep 4 4 h16_colon) ls32)], [Rep 0 3 HEXDIG, Cat dcolon (Cat (Rep 3 3
        h16_colon) ls32)], [Rep 0 3 HEXDIG, Ch 58 58, h16, Cat dcolon (Cat (Rep 3 3 h16_colon)
        ls32)], [Rep 0 3 HEXDIG, Cat dcolon (Cat (Rep 2 2 h16_colon) ls32)], [Rep 0 3 HEXDIG, Ch
        58 58, Rep 0 1 h16_colon, h16, Cat dcolon (Cat (Rep 2 2 h16_colon) ls32)], [Rep 0 3
        HEXDIG, Cat dcolon (Cat h16_colon ls32)], [Rep 0 3 HEXDIG, Ch 58 58, Rep 0 2 h16_colon,
        h16, Cat dcolon (Cat h16_colon ls32)], [Rep 0 3 HEXDIG, Cat dcolon ls32], [Rep 0 3 HEXDIG,
        Ch 58 58, Rep 0 3 h16_colon, h16, Cat dcolon ls32], [Rep 0 3 HEXDIG, Cat dcolon h16], [Rep
        0 3 HEXDIG, Ch 58 58, Rep 0 4 h16_colon, h16, Cat dcolon h16], [Rep 0 3 HEXDIG, dcolon],
        [Rep 0 3 HEXDIG, Ch 58 58, Rep 0 5 h16_colon, h16, dcolon]], []]])
      else
      if s = 77 then ([-128, 46, 47, 48, 58, 59, 65, 71, 97, 103], [[[[Cat (Ch 46 46) (Cat
        dec_octet (Cat (Ch 46 46) (Cat dec_octet (Cat (Ch 46 46) dec_octet))))], [DIGIT, Cat (Ch
        46 46) (Cat dec_octet (Cat (Ch 46 46) (Cat dec_octet (Cat (Ch 46 46) dec_octet))))]],
        [[Rep 0 2 HEXDIG, Ch 58 58, Rep 5 5 h16_colon, ls32], [Rep 0 2 HEXDIG, Cat dcolon (Cat
        (Rep 4 4 h16_colon) ls32)], [Rep 0 2 HEXDIG, Cat dcolon (Cat (Rep 3 3 h16_colon) ls32)],
        [Rep 0 2 HEXDIG, Ch 58 58, h16, Cat dcolon (Cat (Rep 3 3 h16_colon) ls32)], [Rep 0 2
        HEXDIG, Cat dcolon (Cat (Rep 2 2 h16_colon) ls32)], [Rep 0 2 HEXDIG, Ch 58 58, Rep 0 1
        h16_colon, h16, Cat dcolon (Cat (Rep 2 2 h16_colon) ls32)], [Rep 0 2 HEXDIG, Cat dcolon
        (Cat h16_colon ls32)], [Rep 0 2 HEXDIG, Ch 58 58, Rep 0 2 h16_colon, h16, Cat dcolon (Cat
        h16_colon ls32)], [Rep 0 2 HEXDIG, Cat dcolon ls32], [Rep 0 2 HEXDIG, Ch 58 58, Rep 0 3
        h16_colon, h16, Cat dcolon ls32], [Rep 0 2 HEXDIG, Cat dcolon h16], [Rep 0 2 HEXDIG, Ch 58
        58, Rep 0 4 h16_colon, h16, Cat dcolon h16], [Rep 0 2 HEXDIG, dcolon], [Rep 0 2 HEXDIG, Ch
        58 58, Rep 0 5 h16_colon, h16, dcolon]], []]])
      else
      if s = 78 then ([-128, 46, 47, 48, 58, 59, 65, 71, 97, 103], [[[[Cat (Ch 46 46) (Cat
        dec_octet (Cat (Ch 46 46) (Cat dec_octet (Cat (Ch 46 46) dec_octet))))]], [[Rep 0 1
        HEXDIG, Ch 58 58, Rep 5 5 h16_colon, ls32], [Rep 0 1 HEXDIG, Cat dcolon (Cat (Rep 4 4
        h16_colon) ls32)], [Rep 0 1 HEXDIG, Cat dcolon (Cat (Rep 3 3 h16_colon) ls32)], [Rep 0 1
        HEXDIG, Ch 58 58, h16, Cat dcolon (Cat (Rep 3 3 h16_colon) ls32)], [Rep 0 1 HEXDIG, Cat
        dcolon (Cat (Rep 2 2 h16_colon) ls32)], [Rep 0 1 HEXDIG, Ch 58 58, Rep 0 1 h16_colon, h16,
        Cat dcolon (Cat (Rep 2 2 h16_colon) ls32)], [Rep 0 1 HEXDIG, Cat dcolon (Cat h16_colon
        ls32)], [Rep 0 1 HEXDIG, Ch 58 58, Rep 0 2 h16_colon, h16, Cat dcolon (Cat h16_colon
        ls32)], [Rep 0 1 HEXDIG, Cat dcolon ls32], [Rep 0 1 HEXDIG, Ch 58 58, Rep 0 3 h16_colon,
        h16, Cat dcolon ls32], [Rep 0 1 HEXDIG, Cat dcolon h16], [Rep 0 1 HEXDIG, Ch 58 58, Rep 0
        4 h16_colon, h16, Cat dcolon h16], [Rep 0 1 HEXDIG, dcolon], [Rep 0 1 HEXDIG, Ch 58 58,
        Rep 0 5 h16_colon, h16, dcolon]], []]])
      else
      if s = 79 then ([-128, 46, 47, 48, 53, 54, 58, 59, 65, 71, 97, 103], [[[[Cat (Ch 46 46) (Cat
        dec_octet (Cat (Ch 46 46) (Cat dec_octet (Cat (Ch 46 46) dec_octet))))], [DIGIT, Cat (Ch
        46 46) (Cat dec_octet (Cat (Ch 46 46) (Cat dec_octet (Cat (Ch 46 46) dec_octet))))], [Cat
        (Ch 48 52) DIGIT, Cat (Ch 46 46) (Cat dec_octet (Cat (Ch 46 46) (Cat dec_octet (Cat (Ch 46
        46) dec_octet))))], [Cat (Ch 53 53) (Ch 48 53), Cat (Ch 46 46) (Cat dec_octet (Cat (Ch 46
        46) (Cat dec_octet (Cat (Ch 46 46) dec_octet))))]], [[Rep 0 3 HEXDIG, Ch 58 58, Rep 5 5
        h16_colon, ls32], [Rep 0 3 HEXDIG, Cat dcolon (Cat (Rep 4 4 h16_colon) ls32)], [Rep 0 3
        HEXDIG, Cat dcolon (Cat (Rep 3 3 h16_colon) ls32)], [Rep 0 3 HEXDIG, Ch 58 58, h16, Cat
        dcolon (Cat (Rep 3 3 h16_colon) ls32)], [Rep 0 3 HEXDIG, Cat dcolon (Cat (Rep 2 2
        h16_colon) ls32)], [Rep 0 3 HEXDIG, Ch 58 58, Rep 0 1 h16_colon, h16, Cat dcolon (Cat (Rep
        2 2 h16_colon) ls32)], [Rep 0 3 HEXDIG, Cat dcolon (Cat h16_colon ls32)], [Rep 0 3 HEXDIG,
        Ch 58 58, Rep 0 2 h16_colon, h16, Cat dcolon (Cat h16_colon ls32)], [Rep 0 3 HEXDIG, Cat
        dcolon ls32], [Rep 0 3 HEXDIG, Ch 58 58, Rep 0 3 h16_colon, h16, Cat dcolon ls32], [Rep 0
        3 HEXDIG, Cat dcolon h16], [Rep 0 3 HEXDIG, Ch 58 58, Rep 0 4 h16_colon, h16, Cat dcolon
        h16], [Rep 0 3 HEXDIG, dcolon], [Rep 0 3 HEXDIG, Ch 58 58, Rep 0 5 h16_colon, h16,
        dcolon]], []]])
      else
      if s = 80 then ([-128, 46, 47, 48, 54, 58, 59, 65, 71, 97, 103], [[[[Cat (Ch 46 46) (Cat
        dec_octet (Cat (Ch 46 46) (Cat dec_octet (Cat (Ch 46 46) dec_octet))))], [Ch 48 53, Cat
        (Ch 46 46) (Cat dec_octet (Cat (Ch 46 46) (Cat dec_octet (Cat (Ch 46 46) dec_octet))))]],
        [[Rep 0 2 HEXDIG, Ch 58 58, Rep 5 5 h16_colon, ls32], [Rep 0 2 HEXDIG, Cat dcolon (Cat
        (Rep 4 4 h16_colon) ls32)], [Rep 0 2 HEXDIG, Cat dcolon (Cat (Rep 3 3 h16_colon) ls32)],
        [Rep 0 2 HEXDIG, Ch 58 58, h16, Cat dcolon (Cat (Rep 3 3 h16_colon) ls32)], [Rep 0 2
        HEXDIG, Cat dcolon (Cat (Rep 2 2 h16_colon) ls32)], [Rep 0 2 HEXDIG, Ch 58 58, Rep 0 1
        h16_colon, h16, Cat dcolon (Cat (Rep 2 2 h16_colon) ls32)], [Rep 0 2 HEXDIG, Cat dcolon
        (Cat h16_colon ls32)], [Rep 0 2 HEXDIG, Ch 58 58, Rep 0 2 h16_colon, h16, Cat dcolon (Cat
        h16_colon ls32)], [Rep 0 2 HEXDIG, Cat dcolon ls32], [Rep 0 2 HEXDIG, Ch 58 58, Rep 0 3
        h16_colon, h16, Cat dcolon ls32], [Rep 0 2 HEXDIG, Cat dcolon h16], [Rep 0 2 HEXDIG, Ch 58
        58, Rep 0 4 h16_colon, h16, Cat dcolon h16], [Rep 0 2 HEXDIG, dcolon], [Rep 0 2 HEXDIG, Ch
        58 58, Rep 0 5 h16_colon, h16, dcolon]], []]])
      else
      if s = 81 then ([-128, 46, 47, 48, 58, 59, 65, 71, 97, 103], [[[[Cat (Ch 46 46) (Cat
        dec_octet (Cat (Ch 46 46) (Cat dec_octet (Cat (Ch 46 46) dec_octet))))]], [[Rep 0 2
        HEXDIG, Ch 58 58, Rep 5 5 h16_colon, ls32], [Rep 0 2 HEXDIG, Cat dcolon (Cat (Rep 4 4
        h16_colon) ls32)], [Rep 0 2 HEXDIG, Cat dcolon (Cat (Rep 3 3 h16_colon) ls32)], [Rep 0 2
        HEXDIG, Ch 58 58, h16, Cat dcolon (Cat (Rep 3 3 h16_colon) ls32)], [Rep 0 2 HEXDIG, Cat
        dcolon (Cat (Rep 2 2 h16_colon) ls32)], [Rep 0 2 HEXDIG, Ch 58 58, Rep 0 1 h16_colon, h16,
        Cat dcolon (Cat (Rep 2 2 h16_colon) ls32)], [Rep 0 2 HEXDIG, Cat dcolon (Cat h16_colon
        ls32)], [Rep 0 2 HEXDIG, Ch 58 58, Rep 0 2 h16_colon, h16, Cat dcolon (Cat h16_colon
        ls32)], [Rep 0 2 HEXDIG, Cat dcolon ls32], [Rep 0 2 HEXDIG, Ch 58 58, Rep 0 3 h16_colon,
        h16, Cat dcolon ls32], [Rep 0 2 HEXDIG, Cat dcolon h16], [Rep 0 2 HEXDIG, Ch 58 58, Rep 0
        4 h16_colon, h16, Cat dcolon h16], [Rep 0 2 HEXDIG, dcolon], [Rep 0 2 HEXDIG, Ch 58 58,
        Rep 0 5 h16_colon, h16, dcolon]], []]])
      else
      if s = 82 then ([-128, 46, 47, 48, 58, 59, 65, 71, 97, 103], [[[[Cat (Ch 46 46) (Cat
        dec_octet (Cat (Ch 46 46) (Cat dec_octet (Cat (Ch 46 46) dec_octet))))], [DIGIT, Cat (Ch
        46 46) (Cat dec_octet (Cat (Ch 46 46) (Cat dec_octet (Cat (Ch 46 46) dec_octet))))]],
        [[Rep 0 3 HEXDIG, Ch 58 58, Rep 5 5 h16_colon, ls32], [Rep 0 3 HEXDIG, Cat dcolon (Cat
        (Rep 4 4 h16_colon) ls32)], [Rep 0 3 HEXDIG, Cat dcolon (Cat (Rep 3 3 h16_colon) ls32)],
        [Rep 0 3 HEXDIG, Ch 58 58, h16, Cat dcolon (Cat (Rep 3 3 h16_colon) ls32)], [Rep 0 3
        HEXDIG, Cat dcolon (Cat (Rep 2 2 h16_colon) ls32)], [Rep 0 3 HEXDIG, Ch 58 58, Rep 0 1
        h16_colon, h16, Cat dcolon (Cat (Rep 2 2 h16_colon) ls32)], [Rep 0 3 HEXDIG, Cat dcolon
        (Cat h16_colon ls32)], [Rep 0 3 HEXDIG, Ch 58 58, Rep 0 2 h16_colon, h16, Cat dcolon (Cat
        h16_colon ls32)], [Rep 0 3 HEXDIG, Cat dcolon ls32], [Rep 0 3 HEXDIG, Ch 58 58, Rep 0 3
        h16_colon, h16, Cat dcolon ls32], [Rep 0 3 HEXDIG, Cat dcolon h16], [Rep 0 3 HEXDIG, Ch 58
        58, Rep 0 4 h16_colon, h16, Cat dcolon h16], [Rep 0 3 HEXDIG, dcolon], [Rep 0 3 HEXDIG, Ch
        58 58, Rep 0 5 h16_colon, h16, dcolon]], []]])
      else
      if s = 83 then ([-128, 58, 59], [[[], [[Ch 58 58, Cat (Rep 5 5 h16_colon) ls32], [Ch 58 58,
        Cat (Rep 4 4 h16_colon) ls32], [Ch 58 58, Cat (Rep 3 3 h16_colon) ls32], [Ch 58 58, Cat
        (Rep 2 2 h16_colon) ls32], [Ch 58 58, Cat h16_colon ls32], [Ch 58 58, ls32], [Ch 58 58,
        h16], [Ch 58 58]], []]])
      else
      ([-128, 48, 49, 50, 51, 58, 65, 71, 97, 103], [[[], [[Rep 4 4 h16_colon, ls32], [Rep 3 3
        h16_colon, ls32], [Rep 2 2 h16_colon, ls32], [h16_colon, ls32], [ls32], [h16]], []]]))"

definition ip_expects_8 :: certificate where
  "ip_expects_8 s =
     (if s = 85 then ([-128, 48, 58, 59, 65, 71, 97, 103], [[[], [[Rep 0 3 HEXDIG, Ch 58 58, Rep 5
        5 h16_colon, ls32], [Rep 0 3 HEXDIG, Cat dcolon (Cat (Rep 4 4 h16_colon) ls32)], [Rep 0 3
        HEXDIG, Cat dcolon (Cat (Rep 3 3 h16_colon) ls32)], [Rep 0 3 HEXDIG, Ch 58 58, h16, Cat
        dcolon (Cat (Rep 3 3 h16_colon) ls32)], [Rep 0 3 HEXDIG, Cat dcolon (Cat (Rep 2 2
        h16_colon) ls32)], [Rep 0 3 HEXDIG, Ch 58 58, Rep 0 1 h16_colon, h16, Cat dcolon (Cat (Rep
        2 2 h16_colon) ls32)], [Rep 0 3 HEXDIG, Cat dcolon (Cat h16_colon ls32)], [Rep 0 3 HEXDIG,
        Ch 58 58, Rep 0 2 h16_colon, h16, Cat dcolon (Cat h16_colon ls32)], [Rep 0 3 HEXDIG, Cat
        dcolon ls32], [Rep 0 3 HEXDIG, Ch 58 58, Rep 0 3 h16_colon, h16, Cat dcolon ls32], [Rep 0
        3 HEXDIG, Cat dcolon h16], [Rep 0 3 HEXDIG, Ch 58 58, Rep 0 4 h16_colon, h16, Cat dcolon
        h16], [Rep 0 3 HEXDIG, dcolon], [Rep 0 3 HEXDIG, Ch 58 58, Rep 0 5 h16_colon, h16,
        dcolon]], []]])
      else
      if s = 86 then ([-128, 48, 58, 59, 65, 71, 97, 103], [[[], [], [[Cat IPv6address (Ch 93
        93)]]]])
      else
      if s = 87 then ([-128, 48, 58, 59, 65, 71, 97, 103], [[[], [], [[Rep 0 3 HEXDIG, Ch 58 58,
        Rep 5 5 h16_colon, ls32, Ch 93 93], [Rep 0 3 HEXDIG, Cat dcolon (Cat (Rep 4 4 h16_colon)
        ls32), Ch 93 93], [Rep 0 3 HEXDIG, Cat dcolon (Cat (Rep 3 3 h16_colon) ls32), Ch 93 93],
        [Rep 0 3 HEXDIG, Ch 58 58, h16, Cat dcolon (Cat (Rep 3 3 h16_colon) ls32), Ch 93 93], [Rep
        0 3 HEXDIG, Cat dcolon (Cat (Rep 2 2 h16_colon) ls32), Ch 93 93], [Rep 0 3 HEXDIG, Ch 58
        58, Rep 0 1 h16_colon, h16, Cat dcolon (Cat (Rep 2 2 h16_colon) ls32), Ch 93 93], [Rep 0 3
        HEXDIG, Cat dcolon (Cat h16_colon ls32), Ch 93 93], [Rep 0 3 HEXDIG, Ch 58 58, Rep 0 2
        h16_colon, h16, Cat dcolon (Cat h16_colon ls32), Ch 93 93], [Rep 0 3 HEXDIG, Cat dcolon
        ls32, Ch 93 93], [Rep 0 3 HEXDIG, Ch 58 58, Rep 0 3 h16_colon, h16, Cat dcolon ls32, Ch 93
        93], [Rep 0 3 HEXDIG, Cat dcolon h16, Ch 93 93], [Rep 0 3 HEXDIG, Ch 58 58, Rep 0 4
        h16_colon, h16, Cat dcolon h16, Ch 93 93], [Rep 0 3 HEXDIG, dcolon, Ch 93 93], [Rep 0 3
        HEXDIG, Ch 58 58, Rep 0 5 h16_colon, h16, dcolon, Ch 93 93]]]])
      else
      if s = 88 then ([-128, 48, 58, 59, 65, 71, 97, 103], [[[], [], [[Rep 0 2 HEXDIG, Ch 58 58,
        Rep 5 5 h16_colon, ls32, Ch 93 93], [Rep 0 2 HEXDIG, Cat dcolon (Cat (Rep 4 4 h16_colon)
        ls32), Ch 93 93], [Rep 0 2 HEXDIG, Cat dcolon (Cat (Rep 3 3 h16_colon) ls32), Ch 93 93],
        [Rep 0 2 HEXDIG, Ch 58 58, h16, Cat dcolon (Cat (Rep 3 3 h16_colon) ls32), Ch 93 93], [Rep
        0 2 HEXDIG, Cat dcolon (Cat (Rep 2 2 h16_colon) ls32), Ch 93 93], [Rep 0 2 HEXDIG, Ch 58
        58, Rep 0 1 h16_colon, h16, Cat dcolon (Cat (Rep 2 2 h16_colon) ls32), Ch 93 93], [Rep 0 2
        HEXDIG, Cat dcolon (Cat h16_colon ls32), Ch 93 93], [Rep 0 2 HEXDIG, Ch 58 58, Rep 0 2
        h16_colon, h16, Cat dcolon (Cat h16_colon ls32), Ch 93 93], [Rep 0 2 HEXDIG, Cat dcolon
        ls32, Ch 93 93], [Rep 0 2 HEXDIG, Ch 58 58, Rep 0 3 h16_colon, h16, Cat dcolon ls32, Ch 93
        93], [Rep 0 2 HEXDIG, Cat dcolon h16, Ch 93 93], [Rep 0 2 HEXDIG, Ch 58 58, Rep 0 4
        h16_colon, h16, Cat dcolon h16, Ch 93 93], [Rep 0 2 HEXDIG, dcolon, Ch 93 93], [Rep 0 2
        HEXDIG, Ch 58 58, Rep 0 5 h16_colon, h16, dcolon, Ch 93 93]]]])
      else
      if s = 89 then ([-128, 48, 58, 59, 65, 71, 97, 103], [[[], [], [[Rep 0 1 HEXDIG, Ch 58 58,
        Rep 5 5 h16_colon, ls32, Ch 93 93], [Rep 0 1 HEXDIG, Cat dcolon (Cat (Rep 4 4 h16_colon)
        ls32), Ch 93 93], [Rep 0 1 HEXDIG, Cat dcolon (Cat (Rep 3 3 h16_colon) ls32), Ch 93 93],
        [Rep 0 1 HEXDIG, Ch 58 58, h16, Cat dcolon (Cat (Rep 3 3 h16_colon) ls32), Ch 93 93], [Rep
        0 1 HEXDIG, Cat dcolon (Cat (Rep 2 2 h16_colon) ls32), Ch 93 93], [Rep 0 1 HEXDIG, Ch 58
        58, Rep 0 1 h16_colon, h16, Cat dcolon (Cat (Rep 2 2 h16_colon) ls32), Ch 93 93], [Rep 0 1
        HEXDIG, Cat dcolon (Cat h16_colon ls32), Ch 93 93], [Rep 0 1 HEXDIG, Ch 58 58, Rep 0 2
        h16_colon, h16, Cat dcolon (Cat h16_colon ls32), Ch 93 93], [Rep 0 1 HEXDIG, Cat dcolon
        ls32, Ch 93 93], [Rep 0 1 HEXDIG, Ch 58 58, Rep 0 3 h16_colon, h16, Cat dcolon ls32, Ch 93
        93], [Rep 0 1 HEXDIG, Cat dcolon h16, Ch 93 93], [Rep 0 1 HEXDIG, Ch 58 58, Rep 0 4
        h16_colon, h16, Cat dcolon h16, Ch 93 93], [Rep 0 1 HEXDIG, dcolon, Ch 93 93], [Rep 0 1
        HEXDIG, Ch 58 58, Rep 0 5 h16_colon, h16, dcolon, Ch 93 93]]]])
      else
      if s = 90 then ([-128, 58, 59], [[[], [], [[Ch 58 58, Rep 5 5 h16_colon, ls32, Ch 93 93],
        [Cat dcolon (Cat (Rep 4 4 h16_colon) ls32), Ch 93 93], [Cat dcolon (Cat (Rep 3 3
        h16_colon) ls32), Ch 93 93], [Ch 58 58, h16, Cat dcolon (Cat (Rep 3 3 h16_colon) ls32), Ch
        93 93], [Cat dcolon (Cat (Rep 2 2 h16_colon) ls32), Ch 93 93], [Ch 58 58, Rep 0 1
        h16_colon, h16, Cat dcolon (Cat (Rep 2 2 h16_colon) ls32), Ch 93 93], [Cat dcolon (Cat
        h16_colon ls32), Ch 93 93], [Ch 58 58, Rep 0 2 h16_colon, h16, Cat dcolon (Cat h16_colon
        ls32), Ch 93 93], [Cat dcolon ls32, Ch 93 93], [Ch 58 58, Rep 0 3 h16_colon, h16, Cat
        dcolon ls32, Ch 93 93], [Cat dcolon h16, Ch 93 93], [Ch 58 58, Rep 0 4 h16_colon, h16, Cat
        dcolon h16, Ch 93 93], [dcolon, Ch 93 93], [Ch 58 58, Rep 0 5 h16_colon, h16, dcolon, Ch
        93 93]]]])
      else
      if s = 91 then ([-128, 48, 58, 59, 65, 71, 97, 103], [[[], [], [[Rep 5 5 h16_colon, ls32, Ch
        93 93], [Ch 58 58, Cat (Rep 4 4 h16_colon) ls32, Ch 93 93], [Ch 58 58, Cat (Rep 3 3
        h16_colon) ls32, Ch 93 93], [h16, Cat dcolon (Cat (Rep 3 3 h16_colon) ls32), Ch 93 93],
        [Ch 58 58, Cat (Rep 2 2 h16_colon) ls32, Ch 93 93], [Rep 0 1 h16_colon, h16, Cat dcolon
        (Cat (Rep 2 2 h16_colon) ls32), Ch 93 93], [Ch 58 58, Cat h16_colon ls32, Ch 93 93], [Rep
        0 2 h16_colon, h16, Cat dcolon (Cat h16_colon ls32), Ch 93 93], [Ch 58 58, ls32, Ch 93
        93], [Rep 0 3 h16_colon, h16, Cat dcolon ls32, Ch 93 93], [Ch 58 58, h16, Ch 93 93], [Rep
        0 4 h16_colon, h16, Cat dcolon h16, Ch 93 93], [Ch 58 58, Ch 93 93], [Rep 0 5 h16_colon,
        h16, dcolon, Ch 93 93]]]])
      else
      if s = 92 then ([-128, 48, 58, 59, 65, 71, 97, 103], [[[], [], [[Rep 0 3 HEXDIG, Ch 58 58,
        Rep 4 4 h16_colon, ls32, Ch 93 93], [Rep 0 3 HEXDIG, Cat dcolon (Cat (Rep 3 3 h16_colon)
        ls32), Ch 93 93], [Rep 0 3 HEXDIG, Cat dcolon (Cat (Rep 2 2 h16_colon) ls32), Ch 93 93],
        [Rep 0 3 HEXDIG, Ch 58 58, h16, Cat dcolon (Cat (Rep 2 2 h16_colon) ls32), Ch 93 93], [Rep
        0 3 HEXDIG, Cat dcolon (Cat h16_colon ls32), Ch 93 93], [Rep 0 3 HEXDIG, Ch 58 58, Rep 0 1
        h16_colon, h16, Cat dcolon (Cat h16_colon ls32), Ch 93 93], [Rep 0 3 HEXDIG, Cat dcolon
        ls32, Ch 93 93], [Rep 0 3 HEXDIG, Ch 58 58, Rep 0 2 h16_colon, h16, Cat dcolon ls32, Ch 93
        93], [Rep 0 3 HEXDIG, Cat dcolon h16, Ch 93 93], [Rep 0 3 HEXDIG, Ch 58 58, Rep 0 3
        h16_colon, h16, Cat dcolon h16, Ch 93 93], [Rep 0 3 HEXDIG, dcolon, Ch 93 93], [Rep 0 3
        HEXDIG, Ch 58 58, Rep 0 4 h16_colon, h16, dcolon, Ch 93 93]]]])
      else
      if s = 93 then ([-128, 48, 58, 59, 65, 71, 97, 103], [[[], [], [[Rep 0 2 HEXDIG, Ch 58 58,
        Rep 4 4 h16_colon, ls32, Ch 93 93], [Rep 0 2 HEXDIG, Cat dcolon (Cat (Rep 3 3 h16_colon)
        ls32), Ch 93 93], [Rep 0 2 HEXDIG, Cat dcolon (Cat (Rep 2 2 h16_colon) ls32), Ch 93 93],
        [Rep 0 2 HEXDIG, Ch 58 58, h16, Cat dcolon (Cat (Rep 2 2 h16_colon) ls32), Ch 93 93], [Rep
        0 2 HEXDIG, Cat dcolon (Cat h16_colon ls32), Ch 93 93], [Rep 0 2 HEXDIG, Ch 58 58, Rep 0 1
        h16_colon, h16, Cat dcolon (Cat h16_colon ls32), Ch 93 93], [Rep 0 2 HEXDIG, Cat dcolon
        ls32, Ch 93 93], [Rep 0 2 HEXDIG, Ch 58 58, Rep 0 2 h16_colon, h16, Cat dcolon ls32, Ch 93
        93], [Rep 0 2 HEXDIG, Cat dcolon h16, Ch 93 93], [Rep 0 2 HEXDIG, Ch 58 58, Rep 0 3
        h16_colon, h16, Cat dcolon h16, Ch 93 93], [Rep 0 2 HEXDIG, dcolon, Ch 93 93], [Rep 0 2
        HEXDIG, Ch 58 58, Rep 0 4 h16_colon, h16, dcolon, Ch 93 93]]]])
      else
      if s = 94 then ([-128, 48, 58, 59, 65, 71, 97, 103], [[[], [], [[Rep 0 1 HEXDIG, Ch 58 58,
        Rep 4 4 h16_colon, ls32, Ch 93 93], [Rep 0 1 HEXDIG, Cat dcolon (Cat (Rep 3 3 h16_colon)
        ls32), Ch 93 93], [Rep 0 1 HEXDIG, Cat dcolon (Cat (Rep 2 2 h16_colon) ls32), Ch 93 93],
        [Rep 0 1 HEXDIG, Ch 58 58, h16, Cat dcolon (Cat (Rep 2 2 h16_colon) ls32), Ch 93 93], [Rep
        0 1 HEXDIG, Cat dcolon (Cat h16_colon ls32), Ch 93 93], [Rep 0 1 HEXDIG, Ch 58 58, Rep 0 1
        h16_colon, h16, Cat dcolon (Cat h16_colon ls32), Ch 93 93], [Rep 0 1 HEXDIG, Cat dcolon
        ls32, Ch 93 93], [Rep 0 1 HEXDIG, Ch 58 58, Rep 0 2 h16_colon, h16, Cat dcolon ls32, Ch 93
        93], [Rep 0 1 HEXDIG, Cat dcolon h16, Ch 93 93], [Rep 0 1 HEXDIG, Ch 58 58, Rep 0 3
        h16_colon, h16, Cat dcolon h16, Ch 93 93], [Rep 0 1 HEXDIG, dcolon, Ch 93 93], [Rep 0 1
        HEXDIG, Ch 58 58, Rep 0 4 h16_colon, h16, dcolon, Ch 93 93]]]])
      else
      if s = 95 then ([-128, 58, 59], [[[], [], [[Ch 58 58, Rep 4 4 h16_colon, ls32, Ch 93 93],
        [Cat dcolon (Cat (Rep 3 3 h16_colon) ls32), Ch 93 93], [Cat dcolon (Cat (Rep 2 2
        h16_colon) ls32), Ch 93 93], [Ch 58 58, h16, Cat dcolon (Cat (Rep 2 2 h16_colon) ls32), Ch
        93 93], [Cat dcolon (Cat h16_colon ls32), Ch 93 93], [Ch 58 58, Rep 0 1 h16_colon, h16,
        Cat dcolon (Cat h16_colon ls32), Ch 93 93], [Cat dcolon ls32, Ch 93 93], [Ch 58 58, Rep 0
        2 h16_colon, h16, Cat dcolon ls32, Ch 93 93], [Cat dcolon h16, Ch 93 93], [Ch 58 58, Rep 0
        3 h16_colon, h16, Cat dcolon h16, Ch 93 93], [dcolon, Ch 93 93], [Ch 58 58, Rep 0 4
        h16_colon, h16, dcolon, Ch 93 93]]]])
      else
      ([-128, 48, 58, 59, 65, 71, 97, 103], [[[], [], [[Rep 4 4 h16_colon, ls32, Ch 93 93], [Ch 58
        58, Cat (Rep 3 3 h16_colon) ls32, Ch 93 93], [Ch 58 58, Cat (Rep 2 2 h16_colon) ls32, Ch
        93 93], [h16, Cat dcolon (Cat (Rep 2 2 h16_colon) ls32), Ch 93 93], [Ch 58 58, Cat
        h16_colon ls32, Ch 93 93], [Rep 0 1 h16_colon, h16, Cat dcolon (Cat h16_colon ls32), Ch 93
        93], [Ch 58 58, ls32, Ch 93 93], [Rep 0 2 h16_colon, h16, Cat dcolon ls32, Ch 93 93], [Ch
        58 58, h16, Ch 93 93], [Rep 0 3 h16_colon, h16, Cat dcolon h16, Ch 93 93], [Ch 58 58, Ch
        93 93], [Rep 0 4 h16_colon, h16, dcolon, Ch 93 93]]]]))"

definition ip_expects_9 :: certificate where
  "ip_expects_9 s =
     (if s = 97 then ([-128, 48, 58, 59, 65, 71, 97, 103], [[[], [], [[Rep 0 3 HEXDIG, Ch 58 58,
        Rep 3 3 h16_colon, ls32, Ch 93 93], [Rep 0 3 HEXDIG, Cat dcolon (Cat (Rep 2 2 h16_colon)
        ls32), Ch 93 93], [Rep 0 3 HEXDIG, Cat dcolon (Cat h16_colon ls32), Ch 93 93], [Rep 0 3
        HEXDIG, Ch 58 58, h16, Cat dcolon (Cat h16_colon ls32), Ch 93 93], [Rep 0 3 HEXDIG, Cat
        dcolon ls32, Ch 93 93], [Rep 0 3 HEXDIG, Ch 58 58, Rep 0 1 h16_colon, h16, Cat dcolon
        ls32, Ch 93 93], [Rep 0 3 HEXDIG, Cat dcolon h16, Ch 93 93], [Rep 0 3 HEXDIG, Ch 58 58,
        Rep 0 2 h16_colon, h16, Cat dcolon h16, Ch 93 93], [Rep 0 3 HEXDIG, dcolon, Ch 93 93],
        [Rep 0 3 HEXDIG, Ch 58 58, Rep 0 3 h16_colon, h16, dcolon, Ch 93 93]]]])
      else
      if s = 98 then ([-128, 48, 58, 59, 65, 71, 97, 103], [[[], [], [[Rep 0 2 HEXDIG, Ch 58 58,
        Rep 3 3 h16_colon, ls32, Ch 93 93], [Rep 0 2 HEXDIG, Cat dcolon (Cat (Rep 2 2 h16_colon)
        ls32), Ch 93 93], [Rep 0 2 HEXDIG, Cat dcolon (Cat h16_colon ls32), Ch 93 93], [Rep 0 2
        HEXDIG, Ch 58 58, h16, Cat dcolon (Cat h16_colon ls32), Ch 93 93], [Rep 0 2 HEXDIG, Cat
        dcolon ls32, Ch 93 93], [Rep 0 2 HEXDIG, Ch 58 58, Rep 0 1 h16_colon, h16, Cat dcolon
        ls32, Ch 93 93], [Rep 0 2 HEXDIG, Cat dcolon h16, Ch 93 93], [Rep 0 2 HEXDIG, Ch 58 58,
        Rep 0 2 h16_colon, h16, Cat dcolon h16, Ch 93 93], [Rep 0 2 HEXDIG, dcolon, Ch 93 93],
        [Rep 0 2 HEXDIG, Ch 58 58, Rep 0 3 h16_colon, h16, dcolon, Ch 93 93]]]])
      else
      if s = 99 then ([-128, 48, 58, 59, 65, 71, 97, 103], [[[], [], [[Rep 0 1 HEXDIG, Ch 58 58,
        Rep 3 3 h16_colon, ls32, Ch 93 93], [Rep 0 1 HEXDIG, Cat dcolon (Cat (Rep 2 2 h16_colon)
        ls32), Ch 93 93], [Rep 0 1 HEXDIG, Cat dcolon (Cat h16_colon ls32), Ch 93 93], [Rep 0 1
        HEXDIG, Ch 58 58, h16, Cat dcolon (Cat h16_colon ls32), Ch 93 93], [Rep 0 1 HEXDIG, Cat
        dcolon ls32, Ch 93 93], [Rep 0 1 HEXDIG, Ch 58 58, Rep 0 1 h16_colon, h16, Cat dcolon
        ls32, Ch 93 93], [Rep 0 1 HEXDIG, Cat dcolon h16, Ch 93 93], [Rep 0 1 HEXDIG, Ch 58 58,
        Rep 0 2 h16_colon, h16, Cat dcolon h16, Ch 93 93], [Rep 0 1 HEXDIG, dcolon, Ch 93 93],
        [Rep 0 1 HEXDIG, Ch 58 58, Rep 0 3 h16_colon, h16, dcolon, Ch 93 93]]]])
      else
      if s = 100 then ([-128, 58, 59], [[[], [], [[Ch 58 58, Rep 3 3 h16_colon, ls32, Ch 93 93],
        [Cat dcolon (Cat (Rep 2 2 h16_colon) ls32), Ch 93 93], [Cat dcolon (Cat h16_colon ls32),
        Ch 93 93], [Ch 58 58, h16, Cat dcolon (Cat h16_colon ls32), Ch 93 93], [Cat dcolon ls32,
        Ch 93 93], [Ch 58 58, Rep 0 1 h16_colon, h16, Cat dcolon ls32, Ch 93 93], [Cat dcolon h16,
        Ch 93 93], [Ch 58 58, Rep 0 2 h16_colon, h16, Cat dcolon h16, Ch 93 93], [dcolon, Ch 93
        93], [Ch 58 58, Rep 0 3 h16_colon, h16, dcolon, Ch 93 93]]]])
      else
      if s = 101 then ([-128, 48, 58, 59, 65, 71, 97, 103], [[[], [], [[Rep 3 3 h16_colon, ls32,
        Ch 93 93], [Ch 58 58, Cat (Rep 2 2 h16_colon) ls32, Ch 93 93], [Ch 58 58, Cat h16_colon
        ls32, Ch 93 93], [h16, Cat dcolon (Cat h16_colon ls32), Ch 93 93], [Ch 58 58, ls32, Ch 93
        93], [Rep 0 1 h16_colon, h16, Cat dcolon ls32, Ch 93 93], [Ch 58 58, h16, Ch 93 93], [Rep
        0 2 h16_colon, h16, Cat dcolon h16, Ch 93 93], [Ch 58 58, Ch 93 93], [Rep 0 3 h16_colon,
        h16, dcolon, Ch 93 93]]]])
      else
      if s = 102 then ([-128, 48, 58, 59, 65, 71, 97, 103], [[[], [], [[Rep 0 3 HEXDIG, Ch 58 58,
        Rep 2 2 h16_colon, ls32, Ch 93 93], [Rep 0 3 HEXDIG, Cat dcolon (Cat h16_colon ls32), Ch
        93 93], [Rep 0 3 HEXDIG, Cat dcolon ls32, Ch 93 93], [Rep 0 3 HEXDIG, Ch 58 58, h16, Cat
        dcolon ls32, Ch 93 93], [Rep 0 3 HEXDIG, Cat dcolon h16, Ch 93 93], [Rep 0 3 HEXDIG, Ch 58
        58, Rep 0 1 h16_colon, h16, Cat dcolon h16, Ch 93 93], [Rep 0 3 HEXDIG, dcolon, Ch 93 93],
        [Rep 0 3 HEXDIG, Ch 58 58, Rep 0 2 h16_colon, h16, dcolon, Ch 93 93]]]])
      else
      if s = 103 then ([-128, 48, 58, 59, 65, 71, 97, 103], [[[], [], [[Rep 0 2 HEXDIG, Ch 58 58,
        Rep 2 2 h16_colon, ls32, Ch 93 93], [Rep 0 2 HEXDIG, Cat dcolon (Cat h16_colon ls32), Ch
        93 93], [Rep 0 2 HEXDIG, Cat dcolon ls32, Ch 93 93], [Rep 0 2 HEXDIG, Ch 58 58, h16, Cat
        dcolon ls32, Ch 93 93], [Rep 0 2 HEXDIG, Cat dcolon h16, Ch 93 93], [Rep 0 2 HEXDIG, Ch 58
        58, Rep 0 1 h16_colon, h16, Cat dcolon h16, Ch 93 93], [Rep 0 2 HEXDIG, dcolon, Ch 93 93],
        [Rep 0 2 HEXDIG, Ch 58 58, Rep 0 2 h16_colon, h16, dcolon, Ch 93 93]]]])
      else
      if s = 104 then ([-128, 48, 58, 59, 65, 71, 97, 103], [[[], [], [[Rep 0 1 HEXDIG, Ch 58 58,
        Rep 2 2 h16_colon, ls32, Ch 93 93], [Rep 0 1 HEXDIG, Cat dcolon (Cat h16_colon ls32), Ch
        93 93], [Rep 0 1 HEXDIG, Cat dcolon ls32, Ch 93 93], [Rep 0 1 HEXDIG, Ch 58 58, h16, Cat
        dcolon ls32, Ch 93 93], [Rep 0 1 HEXDIG, Cat dcolon h16, Ch 93 93], [Rep 0 1 HEXDIG, Ch 58
        58, Rep 0 1 h16_colon, h16, Cat dcolon h16, Ch 93 93], [Rep 0 1 HEXDIG, dcolon, Ch 93 93],
        [Rep 0 1 HEXDIG, Ch 58 58, Rep 0 2 h16_colon, h16, dcolon, Ch 93 93]]]])
      else
      if s = 105 then ([-128, 58, 59], [[[], [], [[Ch 58 58, Rep 2 2 h16_colon, ls32, Ch 93 93],
        [Cat dcolon (Cat h16_colon ls32), Ch 93 93], [Cat dcolon ls32, Ch 93 93], [Ch 58 58, h16,
        Cat dcolon ls32, Ch 93 93], [Cat dcolon h16, Ch 93 93], [Ch 58 58, Rep 0 1 h16_colon, h16,
        Cat dcolon h16, Ch 93 93], [dcolon, Ch 93 93], [Ch 58 58, Rep 0 2 h16_colon, h16, dcolon,
        Ch 93 93]]]])
      else
      if s = 106 then ([-128, 48, 58, 59, 65, 71, 97, 103], [[[], [], [[Rep 2 2 h16_colon, ls32,
        Ch 93 93], [Ch 58 58, Cat h16_colon ls32, Ch 93 93], [Ch 58 58, ls32, Ch 93 93], [h16, Cat
        dcolon ls32, Ch 93 93], [Ch 58 58, h16, Ch 93 93], [Rep 0 1 h16_colon, h16, Cat dcolon
        h16, Ch 93 93], [Ch 58 58, Ch 93 93], [Rep 0 2 h16_colon, h16, dcolon, Ch 93 93]]]])
      else
      if s = 107 then ([-128, 48, 58, 59, 65, 71, 97, 103], [[[], [], [[Rep 0 3 HEXDIG, Ch 58 58,
        h16_colon, ls32, Ch 93 93], [Rep 0 3 HEXDIG, Cat dcolon ls32, Ch 93 93], [Rep 0 3 HEXDIG,
        Cat dcolon h16, Ch 93 93], [Rep 0 3 HEXDIG, Ch 58 58, h16, Cat dcolon h16, Ch 93 93], [Rep
        0 3 HEXDIG, dcolon, Ch 93 93], [Rep 0 3 HEXDIG, Ch 58 58, Rep 0 1 h16_colon, h16, dcolon,
        Ch 93 93]]]])
      else
      ([-128, 48, 58, 59, 65, 71, 97, 103], [[[], [], [[Rep 0 2 HEXDIG, Ch 58 58, h16_colon, ls32,
        Ch 93 93], [Rep 0 2 HEXDIG, Cat dcolon ls32, Ch 93 93], [Rep 0 2 HEXDIG, Cat dcolon h16,
        Ch 93 93], [Rep 0 2 HEXDIG, Ch 58 58, h16, Cat dcolon h16, Ch 93 93], [Rep 0 2 HEXDIG,
        dcolon, Ch 93 93], [Rep 0 2 HEXDIG, Ch 58 58, Rep 0 1 h16_colon, h16, dcolon, Ch 93
        93]]]]))"

definition ip_expects_10 :: certificate where
  "ip_expects_10 s =
     (if s = 109 then ([-128, 48, 58, 59, 65, 71, 97, 103], [[[], [], [[Rep 0 1 HEXDIG, Ch 58 58,
        h16_colon, ls32, Ch 93 93], [Rep 0 1 HEXDIG, Cat dcolon ls32, Ch 93 93], [Rep 0 1 HEXDIG,
        Cat dcolon h16, Ch 93 93], [Rep 0 1 HEXDIG, Ch 58 58, h16, Cat dcolon h16, Ch 93 93], [Rep
        0 1 HEXDIG, dcolon, Ch 93 93], [Rep 0 1 HEXDIG, Ch 58 58, Rep 0 1 h16_colon, h16, dcolon,
        Ch 93 93]]]])
      else
      if s = 110 then ([-128, 58, 59], [[[], [], [[Ch 58 58, h16_colon, ls32, Ch 93 93], [Cat
        dcolon ls32, Ch 93 93], [Cat dcolon h16, Ch 93 93], [Ch 58 58, h16, Cat dcolon h16, Ch 93
        93], [dcolon, Ch 93 93], [Ch 58 58, Rep 0 1 h16_colon, h16, dcolon, Ch 93 93]]]])
      else
      if s = 111 then ([-128, 48, 58, 59, 65, 71, 97, 103], [[[], [], [[h16_colon, ls32, Ch 93
        93], [Ch 58 58, ls32, Ch 93 93], [Ch 58 58, h16, Ch 93 93], [h16, Cat dcolon h16, Ch 93
        93], [Ch 58 58, Ch 93 93], [Rep 0 1 h16_colon, h16, dcolon, Ch 93 93]]]])
      else
      if s = 112 then ([-128, 48, 58, 59, 65, 71, 97, 103], [[[], [], [[Rep 0 3 HEXDIG, Ch 58 58,
        ls32, Ch 93 93], [Rep 0 3 HEXDIG, Cat dcolon h16, Ch 93 93], [Rep 0 3 HEXDIG, dcolon, Ch
        93 93], [Rep 0 3 HEXDIG, Ch 58 58, h16, dcolon, Ch 93 93]]]])
      else
      if s = 113 then ([-128, 48, 58, 59, 65, 71, 97, 103], [[[], [], [[Rep 0 2 HEXDIG, Ch 58 58,
        ls32, Ch 93 93], [Rep 0 2 HEXDIG, Cat dcolon h16, Ch 93 93], [Rep 0 2 HEXDIG, dcolon, Ch
        93 93], [Rep 0 2 HEXDIG, Ch 58 58, h16, dcolon, Ch 93 93]]]])
      else
      if s = 114 then ([-128, 48, 58, 59, 65, 71, 97, 103], [[[], [], [[Rep 0 1 HEXDIG, Ch 58 58,
        ls32, Ch 93 93], [Rep 0 1 HEXDIG, Cat dcolon h16, Ch 93 93], [Rep 0 1 HEXDIG, dcolon, Ch
        93 93], [Rep 0 1 HEXDIG, Ch 58 58, h16, dcolon, Ch 93 93]]]])
      else
      if s = 115 then ([-128, 58, 59], [[[], [], [[Ch 58 58, ls32, Ch 93 93], [Cat dcolon h16, Ch
        93 93], [dcolon, Ch 93 93], [Ch 58 58, h16, dcolon, Ch 93 93]]]])
      else
      if s = 116 then ([-128, 48, 49, 50, 51, 58, 59, 65, 71, 97, 103], [[[], [], [[ls32, Ch 93
        93], [Ch 58 58, h16, Ch 93 93], [Ch 58 58, Ch 93 93], [h16, dcolon, Ch 93 93]]]])
      else
      if s = 117 then ([-128, 46, 47, 48, 58, 59, 65, 71, 97, 103], [[[], [], [[Rep 0 3 HEXDIG,
        Cat (Ch 58 58) h16, Ch 93 93], [Cat (Ch 46 46) (Cat dec_octet (Cat (Ch 46 46) (Cat
        dec_octet (Cat (Ch 46 46) dec_octet)))), Ch 93 93], [Rep 0 3 HEXDIG, dcolon, Ch 93 93]]]])
      else
      if s = 118 then ([-128, 48, 49, 50, 51, 58], [[[], [], [[Cat dec_octet (Cat (Ch 46 46) (Cat
        dec_octet (Cat (Ch 46 46) dec_octet))), Ch 93 93]]]])
      else
      if s = 119 then ([-128, 46, 47], [[[], [], [[Cat (Ch 46 46) (Cat dec_octet (Cat (Ch 46 46)
        dec_octet)), Ch 93 93]]]])
      else
      ([-128, 48, 49, 50, 51, 58], [[[], [], [[Cat dec_octet (Cat (Ch 46 46) dec_octet), Ch 93
        93]]]]))"

definition ip_expects_11 :: certificate where
  "ip_expects_11 s =
     (if s = 121 then ([-128, 46, 47], [[[], [], [[Cat (Ch 46 46) dec_octet, Ch 93 93]]]])
      else
      if s = 122 then ([-128, 48, 49, 50, 51, 58], [[[], [], [[dec_octet, Ch 93 93]]]])
      else
      if s = 123 then ([-128, 93, 94], [[[], [], [[Ch 93 93]]]])
      else
      if s = 124 then ([-128, 48, 58, 93, 94], [[[], [], [[Ch 93 93], [DIGIT, Ch 93 93], [Rep 2 2
        DIGIT, Ch 93 93]]]])
      else
      if s = 125 then ([-128, 48, 58, 93, 94], [[[], [], [[Ch 93 93], [DIGIT, Ch 93 93]]]])
      else
      if s = 126 then ([-128, 48, 53, 54, 58, 93, 94], [[[], [], [[Ch 93 93], [DIGIT, Ch 93 93],
        [Cat (Ch 48 52) DIGIT, Ch 93 93], [Cat (Ch 53 53) (Ch 48 53), Ch 93 93]]]])
      else
      if s = 127 then ([-128, 48, 54, 93, 94], [[[], [], [[Ch 93 93], [Ch 48 53, Ch 93 93]]]])
      else
      if s = 128 then ([-128, 46, 47, 48, 58], [[[], [], [[Cat (Ch 46 46) dec_octet, Ch 93 93],
        [DIGIT, Cat (Ch 46 46) dec_octet, Ch 93 93], [Rep 2 2 DIGIT, Cat (Ch 46 46) dec_octet, Ch
        93 93]]]])
      else
      if s = 129 then ([-128, 46, 47, 48, 58], [[[], [], [[Cat (Ch 46 46) dec_octet, Ch 93 93],
        [DIGIT, Cat (Ch 46 46) dec_octet, Ch 93 93]]]])
      else
      if s = 130 then ([-128, 46, 47, 48, 53, 54, 58], [[[], [], [[Cat (Ch 46 46) dec_octet, Ch 93
        93], [DIGIT, Cat (Ch 46 46) dec_octet, Ch 93 93], [Cat (Ch 48 52) DIGIT, Cat (Ch 46 46)
        dec_octet, Ch 93 93], [Cat (Ch 53 53) (Ch 48 53), Cat (Ch 46 46) dec_octet, Ch 93 93]]]])
      else
      if s = 131 then ([-128, 46, 47, 48, 54], [[[], [], [[Cat (Ch 46 46) dec_octet, Ch 93 93],
        [Ch 48 53, Cat (Ch 46 46) dec_octet, Ch 93 93]]]])
      else
      ([-128, 46, 47, 48, 58], [[[], [], [[Cat (Ch 46 46) (Cat dec_octet (Cat (Ch 46 46)
        dec_octet)), Ch 93 93], [DIGIT, Cat (Ch 46 46) (Cat dec_octet (Cat (Ch 46 46) dec_octet)),
        Ch 93 93], [Rep 2 2 DIGIT, Cat (Ch 46 46) (Cat dec_octet (Cat (Ch 46 46) dec_octet)), Ch
        93 93]]]]))"

definition ip_expects_12 :: certificate where
  "ip_expects_12 s =
     (if s = 133 then ([-128, 46, 47, 48, 58], [[[], [], [[Cat (Ch 46 46) (Cat dec_octet (Cat (Ch
        46 46) dec_octet)), Ch 93 93], [DIGIT, Cat (Ch 46 46) (Cat dec_octet (Cat (Ch 46 46)
        dec_octet)), Ch 93 93]]]])
      else
      if s = 134 then ([-128, 46, 47, 48, 53, 54, 58], [[[], [], [[Cat (Ch 46 46) (Cat dec_octet
        (Cat (Ch 46 46) dec_octet)), Ch 93 93], [DIGIT, Cat (Ch 46 46) (Cat dec_octet (Cat (Ch 46
        46) dec_octet)), Ch 93 93], [Cat (Ch 48 52) DIGIT, Cat (Ch 46 46) (Cat dec_octet (Cat (Ch
        46 46) dec_octet)), Ch 93 93], [Cat (Ch 53 53) (Ch 48 53), Cat (Ch 46 46) (Cat dec_octet
        (Cat (Ch 46 46) dec_octet)), Ch 93 93]]]])
      else
      if s = 135 then ([-128, 46, 47, 48, 54], [[[], [], [[Cat (Ch 46 46) (Cat dec_octet (Cat (Ch
        46 46) dec_octet)), Ch 93 93], [Ch 48 53, Cat (Ch 46 46) (Cat dec_octet (Cat (Ch 46 46)
        dec_octet)), Ch 93 93]]]])
      else
      if s = 136 then ([-128, 48, 58, 59, 65, 71, 97, 103], [[[], [], [[Rep 0 2 HEXDIG, Cat (Ch 58
        58) h16, Ch 93 93], [Rep 0 2 HEXDIG, dcolon, Ch 93 93]]]])
      else
      if s = 137 then ([-128, 48, 58, 59, 65, 71, 97, 103], [[[], [], [[Rep 0 1 HEXDIG, Cat (Ch 58
        58) h16, Ch 93 93], [Rep 0 1 HEXDIG, dcolon, Ch 93 93]]]])
      else
      if s = 138 then ([-128, 58, 59], [[[], [], [[Cat (Ch 58 58) h16, Ch 93 93], [dcolon, Ch 93
        93]]]])
      else
      if s = 139 then ([-128, 48, 58, 59, 65, 71, 97, 103], [[[], [], [[h16, Ch 93 93], [Ch 58 58,
        Ch 93 93]]]])
      else
      if s = 140 then ([-128, 48, 58, 65, 71, 93, 94, 97, 103], [[[], [], [[Rep 0 3 HEXDIG, Ch 93
        93]]]])
      else
      if s = 141 then ([-128, 48, 58, 65, 71, 93, 94, 97, 103], [[[], [], [[Rep 0 2 HEXDIG, Ch 93
        93]]]])
      else
      if s = 142 then ([-128, 48, 58, 65, 71, 93, 94, 97, 103], [[[], [], [[Rep 0 1 HEXDIG, Ch 93
        93]]]])
      else
      if s = 143 then ([-128, 46, 47, 48, 58, 59, 65, 71, 97, 103], [[[], [], [[Rep 0 3 HEXDIG,
        Cat (Ch 58 58) h16, Ch 93 93], [Cat (Ch 46 46) (Cat dec_octet (Cat (Ch 46 46) (Cat
        dec_octet (Cat (Ch 46 46) dec_octet)))), Ch 93 93], [DIGIT, Cat (Ch 46 46) (Cat dec_octet
        (Cat (Ch 46 46) (Cat dec_octet (Cat (Ch 46 46) dec_octet)))), Ch 93 93], [Rep 2 2 DIGIT,
        Cat (Ch 46 46) (Cat dec_octet (Cat (Ch 46 46) (Cat dec_octet (Cat (Ch 46 46)
        dec_octet)))), Ch 93 93], [Rep 0 3 HEXDIG, dcolon, Ch 93 93]]]])
      else
      ([-128, 46, 47, 48, 58, 59, 65, 71, 97, 103], [[[], [], [[Rep 0 2 HEXDIG, Cat (Ch 58 58)
        h16, Ch 93 93], [Cat (Ch 46 46) (Cat dec_octet (Cat (Ch 46 46) (Cat dec_octet (Cat (Ch 46
        46) dec_octet)))), Ch 93 93], [DIGIT, Cat (Ch 46 46) (Cat dec_octet (Cat (Ch 46 46) (Cat
        dec_octet (Cat (Ch 46 46) dec_octet)))), Ch 93 93], [Rep 0 2 HEXDIG, dcolon, Ch 93 93]]]]))"

definition ip_expects_13 :: certificate where
  "ip_expects_13 s =
     (if s = 145 then ([-128, 46, 47, 48, 58, 59, 65, 71, 97, 103], [[[], [], [[Rep 0 1 HEXDIG,
        Cat (Ch 58 58) h16, Ch 93 93], [Cat (Ch 46 46) (Cat dec_octet (Cat (Ch 46 46) (Cat
        dec_octet (Cat (Ch 46 46) dec_octet)))), Ch 93 93], [Rep 0 1 HEXDIG, dcolon, Ch 93 93]]]])
      else
      if s = 146 then ([-128, 46, 47, 48, 53, 54, 58, 59, 65, 71, 97, 103], [[[], [], [[Rep 0 3
        HEXDIG, Cat (Ch 58 58) h16, Ch 93 93], [Cat (Ch 46 46) (Cat dec_octet (Cat (Ch 46 46) (Cat
        dec_octet (Cat (Ch 46 46) dec_octet)))), Ch 93 93], [DIGIT, Cat (Ch 46 46) (Cat dec_octet
        (Cat (Ch 46 46) (Cat dec_octet (Cat (Ch 46 46) dec_octet)))), Ch 93 93], [Cat (Ch 48 52)
        DIGIT, Cat (Ch 46 46) (Cat dec_octet (Cat (Ch 46 46) (Cat dec_octet (Cat (Ch 46 46)
        dec_octet)))), Ch 93 93], [Cat (Ch 53 53) (Ch 48 53), Cat (Ch 46 46) (Cat dec_octet (Cat
        (Ch 46 46) (Cat dec_octet (Cat (Ch 46 46) dec_octet)))), Ch 93 93], [Rep 0 3 HEXDIG,
        dcolon, Ch 93 93]]]])
      else
      if s = 147 then ([-128, 46, 47, 48, 54, 58, 59, 65, 71, 97, 103], [[[], [], [[Rep 0 2
        HEXDIG, Cat (Ch 58 58) h16, Ch 93 93], [Cat (Ch 46 46) (Cat dec_octet (Cat (Ch 46 46) (Cat
        dec_octet (Cat (Ch 46 46) dec_octet)))), Ch 93 93], [Ch 48 53, Cat (Ch 46 46) (Cat
        dec_octet (Cat (Ch 46 46) (Cat dec_octet (Cat (Ch 46 46) dec_octet)))), Ch 93 93], [Rep 0
        2 HEXDIG, dcolon, Ch 93 93]]]])
      else
      if s = 148 then ([-128, 46, 47, 48, 58, 59, 65, 71, 97, 103], [[[], [], [[Rep 0 2 HEXDIG,
        Cat (Ch 58 58) h16, Ch 93 93], [Cat (Ch 46 46) (Cat dec_octet (Cat (Ch 46 46) (Cat
        dec_octet (Cat (Ch 46 46) dec_octet)))), Ch 93 93], [Rep 0 2 HEXDIG, dcolon, Ch 93 93]]]])
      else
      if s = 149 then ([-128, 46, 47, 48, 58, 59, 65, 71, 97, 103], [[[], [], [[Rep 0 3 HEXDIG,
        Cat (Ch 58 58) h16, Ch 93 93], [Cat (Ch 46 46) (Cat dec_octet (Cat (Ch 46 46) (Cat
        dec_octet (Cat (Ch 46 46) dec_octet)))), Ch 93 93], [DIGIT, Cat (Ch 46 46) (Cat dec_octet
        (Cat (Ch 46 46) (Cat dec_octet (Cat (Ch 46 46) dec_octet)))), Ch 93 93], [Rep 0 3 HEXDIG,
        dcolon, Ch 93 93]]]])
      else
      if s = 150 then ([-128, 48, 58, 65, 71, 93, 94, 97, 103], [[[], [], [[h16, Ch 93 93], [Ch 93
        93]]]])
      else
      if s = 151 then ([-128, 48, 58, 59, 65, 71, 97, 103], [[[], [], [[Rep 0 3 HEXDIG, Cat (Ch 58
        58) h16, Ch 93 93], [Rep 0 3 HEXDIG, dcolon, Ch 93 93]]]])
      else
      if s = 152 then ([-128, 48, 49, 50, 51, 58, 65, 71, 93, 94, 97, 103], [[[], [], [[ls32, Ch
        93 93], [h16, Ch 93 93], [Ch 93 93]]]])
      else
      if s = 153 then ([-128, 46, 47, 48, 58, 59, 65, 71, 93, 94, 97, 103], [[[], [], [[Rep 0 3
        HEXDIG, Cat (Ch 58 58) h16, Ch 93 93], [Cat (Ch 46 46) (Cat dec_octet (Cat (Ch 46 46) (Cat
        dec_octet (Cat (Ch 46 46) dec_octet)))), Ch 93 93], [Rep 0 3 HEXDIG, Ch 93 93]]]])
      else
      if s = 154 then ([-128, 48, 58, 59, 65, 71, 93, 94, 97, 103], [[[], [], [[Rep 0 2 HEXDIG,
        Cat (Ch 58 58) h16, Ch 93 93], [Rep 0 2 HEXDIG, Ch 93 93]]]])
      else
      if s = 155 then ([-128, 48, 58, 59, 65, 71, 93, 94, 97, 103], [[[], [], [[Rep 0 1 HEXDIG,
        Cat (Ch 58 58) h16, Ch 93 93], [Rep 0 1 HEXDIG, Ch 93 93]]]])
      else
      ([-128, 58, 59, 93, 94], [[[], [], [[Cat (Ch 58 58) h16, Ch 93 93], [Ch 93 93]]]]))"

definition ip_expects_14 :: certificate where
  "ip_expects_14 s =
     (if s = 157 then ([-128, 48, 58, 65, 71, 97, 103], [[[], [], [[h16, Ch 93 93]]]])
      else
      if s = 158 then ([-128, 46, 47, 48, 58, 59, 65, 71, 93, 94, 97, 103], [[[], [], [[Rep 0 3
        HEXDIG, Cat (Ch 58 58) h16, Ch 93 93], [Cat (Ch 46 46) (Cat dec_octet (Cat (Ch 46 46) (Cat
        dec_octet (Cat (Ch 46 46) dec_octet)))), Ch 93 93], [DIGIT, Cat (Ch 46 46) (Cat dec_octet
        (Cat (Ch 46 46) (Cat dec_octet (Cat (Ch 46 46) dec_octet)))), Ch 93 93], [Rep 2 2 DIGIT,
        Cat (Ch 46 46) (Cat dec_octet (Cat (Ch 46 46) (Cat dec_octet (Cat (Ch 46 46)
        dec_octet)))), Ch 93 93], [Rep 0 3 HEXDIG, Ch 93 93]]]])
      else
      if s = 159 then ([-128, 46, 47, 48, 58, 59, 65, 71, 93, 94, 97, 103], [[[], [], [[Rep 0 2
        HEXDIG, Cat (Ch 58 58) h16, Ch 93 93], [Cat (Ch 46 46) (Cat dec_octet (Cat (Ch 46 46) (Cat
        dec_octet (Cat (Ch 46 46) dec_octet)))), Ch 93 93], [DIGIT, Cat (Ch 46 46) (Cat dec_octet
        (Cat (Ch 46 46) (Cat dec_octet (Cat (Ch 46 46) dec_octet)))), Ch 93 93], [Rep 0 2 HEXDIG,
        Ch 93 93]]]])
      else
      if s = 160 then ([-128, 46, 47, 48, 58, 59, 65, 71, 93, 94, 97, 103], [[[], [], [[Rep 0 1
        HEXDIG, Cat (Ch 58 58) h16, Ch 93 93], [Cat (Ch 46 46) (Cat dec_octet (Cat (Ch 46 46) (Cat
        dec_octet (Cat (Ch 46 46) dec_octet)))), Ch 93 93], [Rep 0 1 HEXDIG, Ch 93 93]]]])
      else
      if s = 161 then ([-128, 46, 47, 48, 53, 54, 58, 59, 65, 71, 93, 94, 97, 103], [[[], [],
        [[Rep 0 3 HEXDIG, Cat (Ch 58 58) h16, Ch 93 93], [Cat (Ch 46 46) (Cat dec_octet (Cat (Ch
        46 46) (Cat dec_octet (Cat (Ch 46 46) dec_octet)))), Ch 93 93], [DIGIT, Cat (Ch 46 46)
        (Cat dec_octet (Cat (Ch 46 46) (Cat dec_octet (Cat (Ch 46 46) dec_octet)))), Ch 93 93],
        [Cat (Ch 48 52) DIGIT, Cat (Ch 46 46) (Cat dec_octet (Cat (Ch 46 46) (Cat dec_octet (Cat
        (Ch 46 46) dec_octet)))), Ch 93 93], [Cat (Ch 53 53) (Ch 48 53), Cat (Ch 46 46) (Cat
        dec_octet (Cat (Ch 46 46) (Cat dec_octet (Cat (Ch 46 46) dec_octet)))), Ch 93 93], [Rep 0
        3 HEXDIG, Ch 93 93]]]])
      else
      if s = 162 then ([-128, 46, 47, 48, 54, 58, 59, 65, 71, 93, 94, 97, 103], [[[], [], [[Rep 0
        2 HEXDIG, Cat (Ch 58 58) h16, Ch 93 93], [Cat (Ch 46 46) (Cat dec_octet (Cat (Ch 46 46)
        (Cat dec_octet (Cat (Ch 46 46) dec_octet)))), Ch 93 93], [Ch 48 53, Cat (Ch 46 46) (Cat
        dec_octet (Cat (Ch 46 46) (Cat dec_octet (Cat (Ch 46 46) dec_octet)))), Ch 93 93], [Rep 0
        2 HEXDIG, Ch 93 93]]]])
      else
      if s = 163 then ([-128, 46, 47, 48, 58, 59, 65, 71, 93, 94, 97, 103], [[[], [], [[Rep 0 2
        HEXDIG, Cat (Ch 58 58) h16, Ch 93 93], [Cat (Ch 46 46) (Cat dec_octet (Cat (Ch 46 46) (Cat
        dec_octet (Cat (Ch 46 46) dec_octet)))), Ch 93 93], [Rep 0 2 HEXDIG, Ch 93 93]]]])
      else
      if s = 164 then ([-128, 46, 47, 48, 58, 59, 65, 71, 93, 94, 97, 103], [[[], [], [[Rep 0 3
        HEXDIG, Cat (Ch 58 58) h16, Ch 93 93], [Cat (Ch 46 46) (Cat dec_octet (Cat (Ch 46 46) (Cat
        dec_octet (Cat (Ch 46 46) dec_octet)))), Ch 93 93], [DIGIT, Cat (Ch 46 46) (Cat dec_octet
        (Cat (Ch 46 46) (Cat dec_octet (Cat (Ch 46 46) dec_octet)))), Ch 93 93], [Rep 0 3 HEXDIG,
        Ch 93 93]]]])
      else
      if s = 165 then ([-128, 48, 58, 59, 65, 71, 93, 94, 97, 103], [[[], [], [[Rep 0 3 HEXDIG,
        Cat (Ch 58 58) h16, Ch 93 93], [Rep 0 3 HEXDIG, Ch 93 93]]]])
      else
      if s = 166 then ([-128, 48, 49, 50, 51, 58, 65, 71, 93, 94, 97, 103], [[[], [], [[Cat
        h16_colon ls32, Ch 93 93], [ls32, Ch 93 93], [h16, Ch 93 93], [Ch 93 93]]]])
      else
      if s = 167 then ([-128, 46, 47, 48, 58, 59, 65, 71, 93, 94, 97, 103], [[[], [], [[Rep 0 3
        HEXDIG, Ch 58 58, ls32, Ch 93 93], [Rep 0 3 HEXDIG, Cat (Ch 58 58) h16, Ch 93 93], [Cat
        (Ch 46 46) (Cat dec_octet (Cat (Ch 46 46) (Cat dec_octet (Cat (Ch 46 46) dec_octet)))), Ch
        93 93], [Rep 0 3 HEXDIG, Ch 93 93]]]])
      else
      ([-128, 48, 58, 59, 65, 71, 93, 94, 97, 103], [[[], [], [[Rep 0 2 HEXDIG, Ch 58 58, ls32, Ch
        93 93], [Rep 0 2 HEXDIG, Cat (Ch 58 58) h16, Ch 93 93], [Rep 0 2 HEXDIG, Ch 93 93]]]]))"

definition ip_expects_15 :: certificate where
  "ip_expects_15 s =
     (if s = 169 then ([-128, 48, 58, 59, 65, 71, 93, 94, 97, 103], [[[], [], [[Rep 0 1 HEXDIG, Ch
        58 58, ls32, Ch 93 93], [Rep 0 1 HEXDIG, Cat (Ch 58 58) h16, Ch 93 93], [Rep 0 1 HEXDIG,
        Ch 93 93]]]])
      else
      if s = 170 then ([-128, 58, 59, 93, 94], [[[], [], [[Ch 58 58, ls32, Ch 93 93], [Cat (Ch 58
        58) h16, Ch 93 93], [Ch 93 93]]]])
      else
      if s = 171 then ([-128, 48, 49, 50, 51, 58, 65, 71, 97, 103], [[[], [], [[ls32, Ch 93 93],
        [h16, Ch 93 93]]]])
      else
      if s = 172 then ([-128, 46, 47, 48, 58, 59, 65, 71, 93, 94, 97, 103], [[[], [], [[Rep 0 3
        HEXDIG, Ch 58 58, ls32, Ch 93 93], [Rep 0 3 HEXDIG, Cat (Ch 58 58) h16, Ch 93 93], [Cat
        (Ch 46 46) (Cat dec_octet (Cat (Ch 46 46) (Cat dec_octet (Cat (Ch 46 46) dec_octet)))), Ch
        93 93], [DIGIT, Cat (Ch 46 46) (Cat dec_octet (Cat (Ch 46 46) (Cat dec_octet (Cat (Ch 46
        46) dec_octet)))), Ch 93 93], [Rep 2 2 DIGIT, Cat (Ch 46 46) (Cat dec_octet (Cat (Ch 46
        46) (Cat dec_octet (Cat (Ch 46 46) dec_octet)))), Ch 93 93], [Rep 0 3 HEXDIG, Ch 93
        93]]]])
      else
      if s = 173 then ([-128, 46, 47, 48, 58, 59, 65, 71, 93, 94, 97, 103], [[[], [], [[Rep 0 2
        HEXDIG, Ch 58 58, ls32, Ch 93 93], [Rep 0 2 HEXDIG, Cat (Ch 58 58) h16, Ch 93 93], [Cat
        (Ch 46 46) (Cat dec_octet (Cat (Ch 46 46) (Cat dec_octet (Cat (Ch 46 46) dec_octet)))), Ch
        93 93], [DIGIT, Cat (Ch 46 46) (Cat dec_octet (Cat (Ch 46 46) (Cat dec_octet (Cat (Ch 46
        46) dec_octet)))), Ch 93 93], [Rep 0 2 HEXDIG, Ch 93 93]]]])
      else
      if s = 174 then ([-128, 46, 47, 48, 58, 59, 65, 71, 93, 94, 97, 103], [[[], [], [[Rep 0 1
        HEXDIG, Ch 58 58, ls32, Ch 93 93], [Rep 0 1 HEXDIG, Cat (Ch 58 58) h16, Ch 93 93], [Cat
        (Ch 46 46) (Cat dec_octet (Cat (Ch 46 46) (Cat dec_octet (Cat (Ch 46 46) dec_octet)))), Ch
        93 93], [Rep 0 1 HEXDIG, Ch 93 93]]]])
      else
      if s = 175 then ([-128, 46, 47, 48, 53, 54, 58, 59, 65, 71, 93, 94, 97, 103], [[[], [],
        [[Rep 0 3 HEXDIG, Ch 58 58, ls32, Ch 93 93], [Rep 0 3 HEXDIG, Cat (Ch 58 58) h16, Ch 93
        93], [Cat (Ch 46 46) (Cat dec_octet (Cat (Ch 46 46) (Cat dec_octet (Cat (Ch 46 46)
        dec_octet)))), Ch 93 93], [DIGIT, Cat (Ch 46 46) (Cat dec_octet (Cat (Ch 46 46) (Cat
        dec_octet (Cat (Ch 46 46) dec_octet)))), Ch 93 93], [Cat (Ch 48 52) DIGIT, Cat (Ch 46 46)
        (Cat dec_octet (Cat (Ch 46 46) (Cat dec_octet (Cat (Ch 46 46) dec_octet)))), Ch 93 93],
        [Cat (Ch 53 53) (Ch 48 53), Cat (Ch 46 46) (Cat dec_octet (Cat (Ch 46 46) (Cat dec_octet
        (Cat (Ch 46 46) dec_octet)))), Ch 93 93], [Rep 0 3 HEXDIG, Ch 93 93]]]])
      else
      if s = 176 then ([-128, 46, 47, 48, 54, 58, 59, 65, 71, 93, 94, 97, 103], [[[], [], [[Rep 0
        2 HEXDIG, Ch 58 58, ls32, Ch 93 93], [Rep 0 2 HEXDIG, Cat (Ch 58 58) h16, Ch 93 93], [Cat
        (Ch 46 46) (Cat dec_octet (Cat (Ch 46 46) (Cat dec_octet (Cat (Ch 46 46) dec_octet)))), Ch
        93 93], [Ch 48 53, Cat (Ch 46 46) (Cat dec_octet (Cat (Ch 46 46) (Cat dec_octet (Cat (Ch
        46 46) dec_octet)))), Ch 93 93], [Rep 0 2 HEXDIG, Ch 93 93]]]])
      else
      if s = 177 then ([-128, 46, 47, 48, 58, 59, 65, 71, 93, 94, 97, 103], [[[], [], [[Rep 0 2
        HEXDIG, Ch 58 58, ls32, Ch 93 93], [Rep 0 2 HEXDIG, Cat (Ch 58 58) h16, Ch 93 93], [Cat
        (Ch 46 46) (Cat dec_octet (Cat (Ch 46 46) (Cat dec_octet (Cat (Ch 46 46) dec_octet)))), Ch
        93 93], [Rep 0 2 HEXDIG, Ch 93 93]]]])
      else
      if s = 178 then ([-128, 46, 47, 48, 58, 59, 65, 71, 93, 94, 97, 103], [[[], [], [[Rep 0 3
        HEXDIG, Ch 58 58, ls32, Ch 93 93], [Rep 0 3 HEXDIG, Cat (Ch 58 58) h16, Ch 93 93], [Cat
        (Ch 46 46) (Cat dec_octet (Cat (Ch 46 46) (Cat dec_octet (Cat (Ch 46 46) dec_octet)))), Ch
        93 93], [DIGIT, Cat (Ch 46 46) (Cat dec_octet (Cat (Ch 46 46) (Cat dec_octet (Cat (Ch 46
        46) dec_octet)))), Ch 93 93], [Rep 0 3 HEXDIG, Ch 93 93]]]])
      else
      if s = 179 then ([-128, 48, 58, 59, 65, 71, 93, 94, 97, 103], [[[], [], [[Rep 0 3 HEXDIG, Ch
        58 58, ls32, Ch 93 93], [Rep 0 3 HEXDIG, Cat (Ch 58 58) h16, Ch 93 93], [Rep 0 3 HEXDIG,
        Ch 93 93]]]])
      else
      ([-128, 48, 49, 50, 51, 58, 65, 71, 93, 94, 97, 103], [[[], [], [[Cat (Rep 2 2 h16_colon)
        ls32, Ch 93 93], [Cat h16_colon ls32, Ch 93 93], [ls32, Ch 93 93], [h16, Ch 93 93], [Ch 93
        93]]]]))"

definition ip_expects_16 :: certificate where
  "ip_expects_16 s =
     (if s = 181 then ([-128, 46, 47, 48, 58, 59, 65, 71, 93, 94, 97, 103], [[[], [], [[Rep 0 3
        HEXDIG, Ch 58 58, h16_colon, ls32, Ch 93 93], [Rep 0 3 HEXDIG, Ch 58 58, ls32, Ch 93 93],
        [Rep 0 3 HEXDIG, Cat (Ch 58 58) h16, Ch 93 93], [Cat (Ch 46 46) (Cat dec_octet (Cat (Ch 46
        46) (Cat dec_octet (Cat (Ch 46 46) dec_octet)))), Ch 93 93], [Rep 0 3 HEXDIG, Ch 93
        93]]]])
      else
      if s = 182 then ([-128, 48, 58, 59, 65, 71, 93, 94, 97, 103], [[[], [], [[Rep 0 2 HEXDIG, Ch
        58 58, h16_colon, ls32, Ch 93 93], [Rep 0 2 HEXDIG, Ch 58 58, ls32, Ch 93 93], [Rep 0 2
        HEXDIG, Cat (Ch 58 58) h16, Ch 93 93], [Rep 0 2 HEXDIG, Ch 93 93]]]])
      else
      if s = 183 then ([-128, 48, 58, 59, 65, 71, 93, 94, 97, 103], [[[], [], [[Rep 0 1 HEXDIG, Ch
        58 58, h16_colon, ls32, Ch 93 93], [Rep 0 1 HEXDIG, Ch 58 58, ls32, Ch 93 93], [Rep 0 1
        HEXDIG, Cat (Ch 58 58) h16, Ch 93 93], [Rep 0 1 HEXDIG, Ch 93 93]]]])
      else
      if s = 184 then ([-128, 58, 59, 93, 94], [[[], [], [[Ch 58 58, h16_colon, ls32, Ch 93 93],
        [Ch 58 58, ls32, Ch 93 93], [Cat (Ch 58 58) h16, Ch 93 93], [Ch 93 93]]]])
      else
      if s = 185 then ([-128, 48, 49, 50, 51, 58, 65, 71, 97, 103], [[[], [], [[h16_colon, ls32,
        Ch 93 93], [ls32, Ch 93 93], [h16, Ch 93 93]]]])
      else
      if s = 186 then ([-128, 46, 47, 48, 58, 59, 65, 71, 93, 94, 97, 103], [[[], [], [[Rep 0 3
        HEXDIG, Ch 58 58, h16_colon, ls32, Ch 93 93], [Rep 0 3 HEXDIG, Ch 58 58, ls32, Ch 93 93],
        [Rep 0 3 HEXDIG, Cat (Ch 58 58) h16, Ch 93 93], [Cat (Ch 46 46) (Cat dec_octet (Cat (Ch 46
        46) (Cat dec_octet (Cat (Ch 46 46) dec_octet)))), Ch 93 93], [DIGIT, Cat (Ch 46 46) (Cat
        dec_octet (Cat (Ch 46 46) (Cat dec_octet (Cat (Ch 46 46) dec_octet)))), Ch 93 93], [Rep 2
        2 DIGIT, Cat (Ch 46 46) (Cat dec_octet (Cat (Ch 46 46) (Cat dec_octet (Cat (Ch 46 46)
        dec_octet)))), Ch 93 93], [Rep 0 3 HEXDIG, Ch 93 93]]]])
      else
      if s = 187 then ([-128, 46, 47, 48, 58, 59, 65, 71, 93, 94, 97, 103], [[[], [], [[Rep 0 2
        HEXDIG, Ch 58 58, h16_colon, ls32, Ch 93 93], [Rep 0 2 HEXDIG, Ch 58 58, ls32, Ch 93 93],
        [Rep 0 2 HEXDIG, Cat (Ch 58 58) h16, Ch 93 93], [Cat (Ch 46 46) (Cat dec_octet (Cat (Ch 46
        46) (Cat dec_octet (Cat (Ch 46 46) dec_octet)))), Ch 93 93], [DIGIT, Cat (Ch 46 46) (Cat
        dec_octet (Cat (Ch 46 46) (Cat dec_octet (Cat (Ch 46 46) dec_octet)))), Ch 93 93], [Rep 0
        2 HEXDIG, Ch 93 93]]]])
      else
      if s = 188 then ([-128, 46, 47, 48, 58, 59, 65, 71, 93, 94, 97, 103], [[[], [], [[Rep 0 1
        HEXDIG, Ch 58 58, h16_colon, ls32, Ch 93 93], [Rep 0 1 HEXDIG, Ch 58 58, ls32, Ch 93 93],
        [Rep 0 1 HEXDIG, Cat (Ch 58 58) h16, Ch 93 93], [Cat (Ch 46 46) (Cat dec_octet (Cat (Ch 46
        46) (Cat dec_octet (Cat (Ch 46 46) dec_octet)))), Ch 93 93], [Rep 0 1 HEXDIG, Ch 93
        93]]]])
      else
      if s = 189 then ([-128, 46, 47, 48, 53, 54, 58, 59, 65, 71, 93, 94, 97, 103], [[[], [],
        [[Rep 0 3 HEXDIG, Ch 58 58, h16_colon, ls32, Ch 93 93], [Rep 0 3 HEXDIG, Ch 58 58, ls32,
        Ch 93 93], [Rep 0 3 HEXDIG, Cat (Ch 58 58) h16, Ch 93 93], [Cat (Ch 46 46) (Cat dec_octet
        (Cat (Ch 46 46) (Cat dec_octet (Cat (Ch 46 46) dec_octet)))), Ch 93 93], [DIGIT, Cat (Ch
        46 46) (Cat dec_octet (Cat (Ch 46 46) (Cat dec_octet (Cat (Ch 46 46) dec_octet)))), Ch 93
        93], [Cat (Ch 48 52) DIGIT, Cat (Ch 46 46) (Cat dec_octet (Cat (Ch 46 46) (Cat dec_octet
        (Cat (Ch 46 46) dec_octet)))), Ch 93 93], [Cat (Ch 53 53) (Ch 48 53), Cat (Ch 46 46) (Cat
        dec_octet (Cat (Ch 46 46) (Cat dec_octet (Cat (Ch 46 46) dec_octet)))), Ch 93 93], [Rep 0
        3 HEXDIG, Ch 93 93]]]])
      else
      if s = 190 then ([-128, 46, 47, 48, 54, 58, 59, 65, 71, 93, 94, 97, 103], [[[], [], [[Rep 0
        2 HEXDIG, Ch 58 58, h16_colon, ls32, Ch 93 93], [Rep 0 2 HEXDIG, Ch 58 58, ls32, Ch 93
        93], [Rep 0 2 HEXDIG, Cat (Ch 58 58) h16, Ch 93 93], [Cat (Ch 46 46) (Cat dec_octet (Cat
        (Ch 46 46) (Cat dec_octet (Cat (Ch 46 46) dec_octet)))), Ch 93 93], [Ch 48 53, Cat (Ch 46
        46) (Cat dec_octet (Cat (Ch 46 46) (Cat dec_octet (Cat (Ch 46 46) dec_octet)))), Ch 93
        93], [Rep 0 2 HEXDIG, Ch 93 93]]]])
      else
      if s = 191 then ([-128, 46, 47, 48, 58, 59, 65, 71, 93, 94, 97, 103], [[[], [], [[Rep 0 2
        HEXDIG, Ch 58 58, h16_colon, ls32, Ch 93 93], [Rep 0 2 HEXDIG, Ch 58 58, ls32, Ch 93 93],
        [Rep 0 2 HEXDIG, Cat (Ch 58 58) h16, Ch 93 93], [Cat (Ch 46 46) (Cat dec_octet (Cat (Ch 46
        46) (Cat dec_octet (Cat (Ch 46 46) dec_octet)))), Ch 93 93], [Rep 0 2 HEXDIG, Ch 93
        93]]]])
      else
      ([-128, 46, 47, 48, 58, 59, 65, 71, 93, 94, 97, 103], [[[], [], [[Rep 0 3 HEXDIG, Ch 58 58,
        h16_colon, ls32, Ch 93 93], [Rep 0 3 HEXDIG, Ch 58 58, ls32, Ch 93 93], [Rep 0 3 HEXDIG,
        Cat (Ch 58 58) h16, Ch 93 93], [Cat (Ch 46 46) (Cat dec_octet (Cat (Ch 46 46) (Cat
        dec_octet (Cat (Ch 46 46) dec_octet)))), Ch 93 93], [DIGIT, Cat (Ch 46 46) (Cat dec_octet
        (Cat (Ch 46 46) (Cat dec_octet (Cat (Ch 46 46) dec_octet)))), Ch 93 93], [Rep 0 3 HEXDIG,
        Ch 93 93]]]]))"

definition ip_expects_17 :: certificate where
  "ip_expects_17 s =
     (if s = 193 then ([-128, 48, 58, 59, 65, 71, 93, 94, 97, 103], [[[], [], [[Rep 0 3 HEXDIG, Ch
        58 58, h16_colon, ls32, Ch 93 93], [Rep 0 3 HEXDIG, Ch 58 58, ls32, Ch 93 93], [Rep 0 3
        HEXDIG, Cat (Ch 58 58) h16, Ch 93 93], [Rep 0 3 HEXDIG, Ch 93 93]]]])
      else
      if s = 194 then ([-128, 48, 49, 50, 51, 58, 65, 71, 93, 94, 97, 103], [[[], [], [[Cat (Rep 3
        3 h16_colon) ls32, Ch 93 93], [Cat (Rep 2 2 h16_colon) ls32, Ch 93 93], [Cat h16_colon
        ls32, Ch 93 93], [ls32, Ch 93 93], [h16, Ch 93 93], [Ch 93 93]]]])
      else
      if s = 195 then ([-128, 46, 47, 48, 58, 59, 65, 71, 93, 94, 97, 103], [[[], [], [[Rep 0 3
        HEXDIG, Ch 58 58, Rep 2 2 h16_colon, ls32, Ch 93 93], [Rep 0 3 HEXDIG, Ch 58 58,
        h16_colon, ls32, Ch 93 93], [Rep 0 3 HEXDIG, Ch 58 58, ls32, Ch 93 93], [Rep 0 3 HEXDIG,
        Cat (Ch 58 58) h16, Ch 93 93], [Cat (Ch 46 46) (Cat dec_octet (Cat (Ch 46 46) (Cat
        dec_octet (Cat (Ch 46 46) dec_octet)))), Ch 93 93], [Rep 0 3 HEXDIG, Ch 93 93]]]])
      else
      if s = 196 then ([-128, 48, 58, 59, 65, 71, 93, 94, 97, 103], [[[], [], [[Rep 0 2 HEXDIG, Ch
        58 58, Rep 2 2 h16_colon, ls32, Ch 93 93], [Rep 0 2 HEXDIG, Ch 58 58, h16_colon, ls32, Ch
        93 93], [Rep 0 2 HEXDIG, Ch 58 58, ls32, Ch 93 93], [Rep 0 2 HEXDIG, Cat (Ch 58 58) h16,
        Ch 93 93], [Rep 0 2 HEXDIG, Ch 93 93]]]])
      else
      if s = 197 then ([-128, 48, 58, 59, 65, 71, 93, 94, 97, 103], [[[], [], [[Rep 0 1 HEXDIG, Ch
        58 58, Rep 2 2 h16_colon, ls32, Ch 93 93], [Rep 0 1 HEXDIG, Ch 58 58, h16_colon, ls32, Ch
        93 93], [Rep 0 1 HEXDIG, Ch 58 58, ls32, Ch 93 93], [Rep 0 1 HEXDIG, Cat (Ch 58 58) h16,
        Ch 93 93], [Rep 0 1 HEXDIG, Ch 93 93]]]])
      else
      if s = 198 then ([-128, 58, 59, 93, 94], [[[], [], [[Ch 58 58, Rep 2 2 h16_colon, ls32, Ch
        93 93], [Ch 58 58, h16_colon, ls32, Ch 93 93], [Ch 58 58, ls32, Ch 93 93], [Cat (Ch 58 58)
        h16, Ch 93 93], [Ch 93 93]]]])
      else
      if s = 199 then ([-128, 48, 49, 50, 51, 58, 65, 71, 97, 103], [[[], [], [[Rep 2 2 h16_colon,
        ls32, Ch 93 93], [h16_colon, ls32, Ch 93 93], [ls32, Ch 93 93], [h16, Ch 93 93]]]])
      else
      if s = 200 then ([-128, 46, 47, 48, 58, 59, 65, 71, 93, 94, 97, 103], [[[], [], [[Rep 0 3
        HEXDIG, Ch 58 58, Rep 2 2 h16_colon, ls32, Ch 93 93], [Rep 0 3 HEXDIG, Ch 58 58,
        h16_colon, ls32, Ch 93 93], [Rep 0 3 HEXDIG, Ch 58 58, ls32, Ch 93 93], [Rep 0 3 HEXDIG,
        Cat (Ch 58 58) h16, Ch 93 93], [Cat (Ch 46 46) (Cat dec_octet (Cat (Ch 46 46) (Cat
        dec_octet (Cat (Ch 46 46) dec_octet)))), Ch 93 93], [DIGIT, Cat (Ch 46 46) (Cat dec_octet
        (Cat (Ch 46 46) (Cat dec_octet (Cat (Ch 46 46) dec_octet)))), Ch 93 93], [Rep 2 2 DIGIT,
        Cat (Ch 46 46) (Cat dec_octet (Cat (Ch 46 46) (Cat dec_octet (Cat (Ch 46 46)
        dec_octet)))), Ch 93 93], [Rep 0 3 HEXDIG, Ch 93 93]]]])
      else
      if s = 201 then ([-128, 46, 47, 48, 58, 59, 65, 71, 93, 94, 97, 103], [[[], [], [[Rep 0 2
        HEXDIG, Ch 58 58, Rep 2 2 h16_colon, ls32, Ch 93 93], [Rep 0 2 HEXDIG, Ch 58 58,
        h16_colon, ls32, Ch 93 93], [Rep 0 2 HEXDIG, Ch 58 58, ls32, Ch 93 93], [Rep 0 2 HEXDIG,
        Cat (Ch 58 58) h16, Ch 93 93], [Cat (Ch 46 46) (Cat dec_octet (Cat (Ch 46 46) (Cat
        dec_octet (Cat (Ch 46 46) dec_octet)))), Ch 93 93], [DIGIT, Cat (Ch 46 46) (Cat dec_octet
        (Cat (Ch 46 46) (Cat dec_octet (Cat (Ch 46 46) dec_octet)))), Ch 93 93], [Rep 0 2 HEXDIG,
        Ch 93 93]]]])
      else
      if s = 202 then ([-128, 46, 47, 48, 58, 59, 65, 71, 93, 94, 97, 103], [[[], [], [[Rep 0 1
        HEXDIG, Ch 58 58, Rep 2 2 h16_colon, ls32, Ch 93 93], [Rep 0 1 HEXDIG, Ch 58 58,
        h16_colon, ls32, Ch 93 93], [Rep 0 1 HEXDIG, Ch 58 58, ls32, Ch 93 93], [Rep 0 1 HEXDIG,
        Cat (Ch 58 58) h16, Ch 93 93], [Cat (Ch 46 46) (Cat dec_octet (Cat (Ch 46 46) (Cat
        dec_octet (Cat (Ch 46 46) dec_octet)))), Ch 93 93], [Rep 0 1 HEXDIG, Ch 93 93]]]])
      else
      if s = 203 then ([-128, 46, 47, 48, 53, 54, 58, 59, 65, 71, 93, 94, 97, 103], [[[], [],
        [[Rep 0 3 HEXDIG, Ch 58 58, Rep 2 2 h16_colon, ls32, Ch 93 93], [Rep 0 3 HEXDIG, Ch 58 58,
        h16_colon, ls32, Ch 93 93], [Rep 0 3 HEXDIG, Ch 58 58, ls32, Ch 93 93], [Rep 0 3 HEXDIG,
        Cat (Ch 58 58) h16, Ch 93 93], [Cat (Ch 46 46) (Cat dec_octet (Cat (Ch 46 46) (Cat
        dec_octet (Cat (Ch 46 46) dec_octet)))), Ch 93 93], [DIGIT, Cat (Ch 46 46) (Cat dec_octet
        (Cat (Ch 46 46) (Cat dec_octet (Cat (Ch 46 46) dec_octet)))), Ch 93 93], [Cat (Ch 48 52)
        DIGIT, Cat (Ch 46 46) (Cat dec_octet (Cat (Ch 46 46) (Cat dec_octet (Cat (Ch 46 46)
        dec_octet)))), Ch 93 93], [Cat (Ch 53 53) (Ch 48 53), Cat (Ch 46 46) (Cat dec_octet (Cat
        (Ch 46 46) (Cat dec_octet (Cat (Ch 46 46) dec_octet)))), Ch 93 93], [Rep 0 3 HEXDIG, Ch 93
        93]]]])
      else
      ([-128, 46, 47, 48, 54, 58, 59, 65, 71, 93, 94, 97, 103], [[[], [], [[Rep 0 2 HEXDIG, Ch 58
        58, Rep 2 2 h16_colon, ls32, Ch 93 93], [Rep 0 2 HEXDIG, Ch 58 58, h16_colon, ls32, Ch 93
        93], [Rep 0 2 HEXDIG, Ch 58 58, ls32, Ch 93 93], [Rep 0 2 HEXDIG, Cat (Ch 58 58) h16, Ch
        93 93], [Cat (Ch 46 46) (Cat dec_octet (Cat (Ch 46 46) (Cat dec_octet (Cat (Ch 46 46)
        dec_octet)))), Ch 93 93], [Ch 48 53, Cat (Ch 46 46) (Cat dec_octet (Cat (Ch 46 46) (Cat
        dec_octet (Cat (Ch 46 46) dec_octet)))), Ch 93 93], [Rep 0 2 HEXDIG, Ch 93 93]]]]))"

definition ip_expects_18 :: certificate where
  "ip_expects_18 s =
     (if s = 205 then ([-128, 46, 47, 48, 58, 59, 65, 71, 93, 94, 97, 103], [[[], [], [[Rep 0 2
        HEXDIG, Ch 58 58, Rep 2 2 h16_colon, ls32, Ch 93 93], [Rep 0 2 HEXDIG, Ch 58 58,
        h16_colon, ls32, Ch 93 93], [Rep 0 2 HEXDIG, Ch 58 58, ls32, Ch 93 93], [Rep 0 2 HEXDIG,
        Cat (Ch 58 58) h16, Ch 93 93], [Cat (Ch 46 46) (Cat dec_octet (Cat (Ch 46 46) (Cat
        dec_octet (Cat (Ch 46 46) dec_octet)))), Ch 93 93], [Rep 0 2 HEXDIG, Ch 93 93]]]])
      else
      if s = 206 then ([-128, 46, 47, 48, 58, 59, 65, 71, 93, 94, 97, 103], [[[], [], [[Rep 0 3
        HEXDIG, Ch 58 58, Rep 2 2 h16_colon, ls32, Ch 93 93], [Rep 0 3 HEXDIG, Ch 58 58,
        h16_colon, ls32, Ch 93 93], [Rep 0 3 HEXDIG, Ch 58 58, ls32, Ch 93 93], [Rep 0 3 HEXDIG,
        Cat (Ch 58 58) h16, Ch 93 93], [Cat (Ch 46 46) (Cat dec_octet (Cat (Ch 46 46) (Cat
        dec_octet (Cat (Ch 46 46) dec_octet)))), Ch 93 93], [DIGIT, Cat (Ch 46 46) (Cat dec_octet
        (Cat (Ch 46 46) (Cat dec_octet (Cat (Ch 46 46) dec_octet)))), Ch 93 93], [Rep 0 3 HEXDIG,
        Ch 93 93]]]])
      else
      if s = 207 then ([-128, 48, 58, 59, 65, 71, 93, 94, 97, 103], [[[], [], [[Rep 0 3 HEXDIG, Ch
        58 58, Rep 2 2 h16_colon, ls32, Ch 93 93], [Rep 0 3 HEXDIG, Ch 58 58, h16_colon, ls32, Ch
        93 93], [Rep 0 3 HEXDIG, Ch 58 58, ls32, Ch 93 93], [Rep 0 3 HEXDIG, Cat (Ch 58 58) h16,
        Ch 93 93], [Rep 0 3 HEXDIG, Ch 93 93]]]])
      else
      if s = 208 then ([-128, 48, 49, 50, 51, 58, 65, 71, 93, 94, 97, 103], [[[], [], [[Cat (Rep 4
        4 h16_colon) ls32, Ch 93 93], [Cat (Rep 3 3 h16_colon) ls32, Ch 93 93], [Cat (Rep 2 2
        h16_colon) ls32, Ch 93 93], [Cat h16_colon ls32, Ch 93 93], [ls32, Ch 93 93], [h16, Ch 93
        93], [Ch 93 93]]]])
      else
      if s = 209 then ([-128, 46, 47, 48, 58, 59, 65, 71, 93, 94, 97, 103], [[[], [], [[Rep 0 3
        HEXDIG, Ch 58 58, Rep 3 3 h16_colon, ls32, Ch 93 93], [Rep 0 3 HEXDIG, Ch 58 58, Rep 2 2
        h16_colon, ls32, Ch 93 93], [Rep 0 3 HEXDIG, Ch 58 58, h16_colon, ls32, Ch 93 93], [Rep 0
        3 HEXDIG, Ch 58 58, ls32, Ch 93 93], [Rep 0 3 HEXDIG, Cat (Ch 58 58) h16, Ch 93 93], [Cat
        (Ch 46 46) (Cat dec_octet (Cat (Ch 46 46) (Cat dec_octet (Cat (Ch 46 46) dec_octet)))), Ch
        93 93], [Rep 0 3 HEXDIG, Ch 93 93]]]])
      else
      if s = 210 then ([-128, 48, 58, 59, 65, 71, 93, 94, 97, 103], [[[], [], [[Rep 0 2 HEXDIG, Ch
        58 58, Rep 3 3 h16_colon, ls32, Ch 93 93], [Rep 0 2 HEXDIG, Ch 58 58, Rep 2 2 h16_colon,
        ls32, Ch 93 93], [Rep 0 2 HEXDIG, Ch 58 58, h16_colon, ls32, Ch 93 93], [Rep 0 2 HEXDIG,
        Ch 58 58, ls32, Ch 93 93], [Rep 0 2 HEXDIG, Cat (Ch 58 58) h16, Ch 93 93], [Rep 0 2
        HEXDIG, Ch 93 93]]]])
      else
      if s = 211 then ([-128, 48, 58, 59, 65, 71, 93, 94, 97, 103], [[[], [], [[Rep 0 1 HEXDIG, Ch
        58 58, Rep 3 3 h16_colon, ls32, Ch 93 93], [Rep 0 1 HEXDIG, Ch 58 58, Rep 2 2 h16_colon,
        ls32, Ch 93 93], [Rep 0 1 HEXDIG, Ch 58 58, h16_colon, ls32, Ch 93 93], [Rep 0 1 HEXDIG,
        Ch 58 58, ls32, Ch 93 93], [Rep 0 1 HEXDIG, Cat (Ch 58 58) h16, Ch 93 93], [Rep 0 1
        HEXDIG, Ch 93 93]]]])
      else
      if s = 212 then ([-128, 58, 59, 93, 94], [[[], [], [[Ch 58 58, Rep 3 3 h16_colon, ls32, Ch
        93 93], [Ch 58 58, Rep 2 2 h16_colon, ls32, Ch 93 93], [Ch 58 58, h16_colon, ls32, Ch 93
        93], [Ch 58 58, ls32, Ch 93 93], [Cat (Ch 58 58) h16, Ch 93 93], [Ch 93 93]]]])
      else
      if s = 213 then ([-128, 48, 49, 50, 51, 58, 65, 71, 97, 103], [[[], [], [[Rep 3 3 h16_colon,
        ls32, Ch 93 93], [Rep 2 2 h16_colon, ls32, Ch 93 93], [h16_colon, ls32, Ch 93 93], [ls32,
        Ch 93 93], [h16, Ch 93 93]]]])
      else
      if s = 214 then ([-128, 46, 47, 48, 58, 59, 65, 71, 93, 94, 97, 103], [[[], [], [[Rep 0 3
        HEXDIG, Ch 58 58, Rep 3 3 h16_colon, ls32, Ch 93 93], [Rep 0 3 HEXDIG, Ch 58 58, Rep 2 2
        h16_colon, ls32, Ch 93 93], [Rep 0 3 HEXDIG, Ch 58 58, h16_colon, ls32, Ch 93 93], [Rep 0
        3 HEXDIG, Ch 58 58, ls32, Ch 93 93], [Rep 0 3 HEXDIG, Cat (Ch 58 58) h16, Ch 93 93], [Cat
        (Ch 46 46) (Cat dec_octet (Cat (Ch 46 46) (Cat dec_octet (Cat (Ch 46 46) dec_octet)))), Ch
        93 93], [DIGIT, Cat (Ch 46 46) (Cat dec_octet (Cat (Ch 46 46) (Cat dec_octet (Cat (Ch 46
        46) dec_octet)))), Ch 93 93], [Rep 2 2 DIGIT, Cat (Ch 46 46) (Cat dec_octet (Cat (Ch 46
        46) (Cat dec_octet (Cat (Ch 46 46) dec_octet)))), Ch 93 93], [Rep 0 3 HEXDIG, Ch 93
        93]]]])
      else
      if s = 215 then ([-128, 46, 47, 48, 58, 59, 65, 71, 93, 94, 97, 103], [[[], [], [[Rep 0 2
        HEXDIG, Ch 58 58, Rep 3 3 h16_colon, ls32, Ch 93 93], [Rep 0 2 HEXDIG, Ch 58 58, Rep 2 2
        h16_colon, ls32, Ch 93 93], [Rep 0 2 HEXDIG, Ch 58 58, h16_colon, ls32, Ch 93 93], [Rep 0
        2 HEXDIG, Ch 58 58, ls32, Ch 93 93], [Rep 0 2 HEXDIG, Cat (Ch 58 58) h16, Ch 93 93], [Cat
        (Ch 46 46) (Cat dec_octet (Cat (Ch 46 46) (Cat dec_octet (Cat (Ch 46 46) dec_octet)))), Ch
        93 93], [DIGIT, Cat (Ch 46 46) (Cat dec_octet (Cat (Ch 46 46) (Cat dec_octet (Cat (Ch 46
        46) dec_octet)))), Ch 93 93], [Rep 0 2 HEXDIG, Ch 93 93]]]])
      else
      ([-128, 46, 47, 48, 58, 59, 65, 71, 93, 94, 97, 103], [[[], [], [[Rep 0 1 HEXDIG, Ch 58 58,
        Rep 3 3 h16_colon, ls32, Ch 93 93], [Rep 0 1 HEXDIG, Ch 58 58, Rep 2 2 h16_colon, ls32, Ch
        93 93], [Rep 0 1 HEXDIG, Ch 58 58, h16_colon, ls32, Ch 93 93], [Rep 0 1 HEXDIG, Ch 58 58,
        ls32, Ch 93 93], [Rep 0 1 HEXDIG, Cat (Ch 58 58) h16, Ch 93 93], [Cat (Ch 46 46) (Cat
        dec_octet (Cat (Ch 46 46) (Cat dec_octet (Cat (Ch 46 46) dec_octet)))), Ch 93 93], [Rep 0
        1 HEXDIG, Ch 93 93]]]]))"

definition ip_expects_19 :: certificate where
  "ip_expects_19 s =
     (if s = 217 then ([-128, 46, 47, 48, 53, 54, 58, 59, 65, 71, 93, 94, 97, 103], [[[], [],
        [[Rep 0 3 HEXDIG, Ch 58 58, Rep 3 3 h16_colon, ls32, Ch 93 93], [Rep 0 3 HEXDIG, Ch 58 58,
        Rep 2 2 h16_colon, ls32, Ch 93 93], [Rep 0 3 HEXDIG, Ch 58 58, h16_colon, ls32, Ch 93 93],
        [Rep 0 3 HEXDIG, Ch 58 58, ls32, Ch 93 93], [Rep 0 3 HEXDIG, Cat (Ch 58 58) h16, Ch 93
        93], [Cat (Ch 46 46) (Cat dec_octet (Cat (Ch 46 46) (Cat dec_octet (Cat (Ch 46 46)
        dec_octet)))), Ch 93 93], [DIGIT, Cat (Ch 46 46) (Cat dec_octet (Cat (Ch 46 46) (Cat
        dec_octet (Cat (Ch 46 46) dec_octet)))), Ch 93 93], [Cat (Ch 48 52) DIGIT, Cat (Ch 46 46)
        (Cat dec_octet (Cat (Ch 46 46) (Cat dec_octet (Cat (Ch 46 46) dec_octet)))), Ch 93 93],
        [Cat (Ch 53 53) (Ch 48 53), Cat (Ch 46 46) (Cat dec_octet (Cat (Ch 46 46) (Cat dec_octet
        (Cat (Ch 46 46) dec_octet)))), Ch 93 93], [Rep 0 3 HEXDIG, Ch 93 93]]]])
      else
      if s = 218 then ([-128, 46, 47, 48, 54, 58, 59, 65, 71, 93, 94, 97, 103], [[[], [], [[Rep 0
        2 HEXDIG, Ch 58 58, Rep 3 3 h16_colon, ls32, Ch 93 93], [Rep 0 2 HEXDIG, Ch 58 58, Rep 2 2
        h16_colon, ls32, Ch 93 93], [Rep 0 2 HEXDIG, Ch 58 58, h16_colon, ls32, Ch 93 93], [Rep 0
        2 HEXDIG, Ch 58 58, ls32, Ch 93 93], [Rep 0 2 HEXDIG, Cat (Ch 58 58) h16, Ch 93 93], [Cat
        (Ch 46 46) (Cat dec_octet (Cat (Ch 46 46) (Cat dec_octet (Cat (Ch 46 46) dec_octet)))), Ch
        93 93], [Ch 48 53, Cat (Ch 46 46) (Cat dec_octet (Cat (Ch 46 46) (Cat dec_octet (Cat (Ch
        46 46) dec_octet)))), Ch 93 93], [Rep 0 2 HEXDIG, Ch 93 93]]]])
      else
      if s = 219 then ([-128, 46, 47, 48, 58, 59, 65, 71, 93, 94, 97, 103], [[[], [], [[Rep 0 2
        HEXDIG, Ch 58 58, Rep 3 3 h16_colon, ls32, Ch 93 93], [Rep 0 2 HEXDIG, Ch 58 58, Rep 2 2
        h16_colon, ls32, Ch 93 93], [Rep 0 2 HEXDIG, Ch 58 58, h16_colon, ls32, Ch 93 93], [Rep 0
        2 HEXDIG, Ch 58 58, ls32, Ch 93 93], [Rep 0 2 HEXDIG, Cat (Ch 58 58) h16, Ch 93 93], [Cat
        (Ch 46 46) (Cat dec_octet (Cat (Ch 46 46) (Cat dec_octet (Cat (Ch 46 46) dec_octet)))), Ch
        93 93], [Rep 0 2 HEXDIG, Ch 93 93]]]])
      else
      if s = 220 then ([-128, 46, 47, 48, 58, 59, 65, 71, 93, 94, 97, 103], [[[], [], [[Rep 0 3
        HEXDIG, Ch 58 58, Rep 3 3 h16_colon, ls32, Ch 93 93], [Rep 0 3 HEXDIG, Ch 58 58, Rep 2 2
        h16_colon, ls32, Ch 93 93], [Rep 0 3 HEXDIG, Ch 58 58, h16_colon, ls32, Ch 93 93], [Rep 0
        3 HEXDIG, Ch 58 58, ls32, Ch 93 93], [Rep 0 3 HEXDIG, Cat (Ch 58 58) h16, Ch 93 93], [Cat
        (Ch 46 46) (Cat dec_octet (Cat (Ch 46 46) (Cat dec_octet (Cat (Ch 46 46) dec_octet)))), Ch
        93 93], [DIGIT, Cat (Ch 46 46) (Cat dec_octet (Cat (Ch 46 46) (Cat dec_octet (Cat (Ch 46
        46) dec_octet)))), Ch 93 93], [Rep 0 3 HEXDIG, Ch 93 93]]]])
      else
      if s = 221 then ([-128, 48, 58, 59, 65, 71, 93, 94, 97, 103], [[[], [], [[Rep 0 3 HEXDIG, Ch
        58 58, Rep 3 3 h16_colon, ls32, Ch 93 93], [Rep 0 3 HEXDIG, Ch 58 58, Rep 2 2 h16_colon,
        ls32, Ch 93 93], [Rep 0 3 HEXDIG, Ch 58 58, h16_colon, ls32, Ch 93 93], [Rep 0 3 HEXDIG,
        Ch 58 58, ls32, Ch 93 93], [Rep 0 3 HEXDIG, Cat (Ch 58 58) h16, Ch 93 93], [Rep 0 3
        HEXDIG, Ch 93 93]]]])
      else
      if s = 222 then ([-128, 58, 59], [[[], [], [[Ch 58 58, Cat (Rep 5 5 h16_colon) ls32, Ch 93
        93], [Ch 58 58, Cat (Rep 4 4 h16_colon) ls32, Ch 93 93], [Ch 58 58, Cat (Rep 3 3
        h16_colon) ls32, Ch 93 93], [Ch 58 58, Cat (Rep 2 2 h16_colon) ls32, Ch 93 93], [Ch 58 58,
        Cat h16_colon ls32, Ch 93 93], [Ch 58 58, ls32, Ch 93 93], [Ch 58 58, h16, Ch 93 93], [Ch
        58 58, Ch 93 93]]]])
      else
      if s = 223 then ([-128, 48, 49, 50, 51, 58, 65, 71, 93, 94, 97, 103], [[[], [], [[Cat (Rep 5
        5 h16_colon) ls32, Ch 93 93], [Cat (Rep 4 4 h16_colon) ls32, Ch 93 93], [Cat (Rep 3 3
        h16_colon) ls32, Ch 93 93], [Cat (Rep 2 2 h16_colon) ls32, Ch 93 93], [Cat h16_colon ls32,
        Ch 93 93], [ls32, Ch 93 93], [h16, Ch 93 93], [Ch 93 93]]]])
      else
      if s = 224 then ([-128, 46, 47, 48, 58, 59, 65, 71, 93, 94, 97, 103], [[[], [], [[Rep 0 3
        HEXDIG, Ch 58 58, Rep 4 4 h16_colon, ls32, Ch 93 93], [Rep 0 3 HEXDIG, Ch 58 58, Rep 3 3
        h16_colon, ls32, Ch 93 93], [Rep 0 3 HEXDIG, Ch 58 58, Rep 2 2 h16_colon, ls32, Ch 93 93],
        [Rep 0 3 HEXDIG, Ch 58 58, h16_colon, ls32, Ch 93 93], [Rep 0 3 HEXDIG, Ch 58 58, ls32, Ch
        93 93], [Rep 0 3 HEXDIG, Cat (Ch 58 58) h16, Ch 93 93], [Cat (Ch 46 46) (Cat dec_octet
        (Cat (Ch 46 46) (Cat dec_octet (Cat (Ch 46 46) dec_octet)))), Ch 93 93], [Rep 0 3 HEXDIG,
        Ch 93 93]]]])
      else
      if s = 225 then ([-128, 48, 58, 59, 65, 71, 93, 94, 97, 103], [[[], [], [[Rep 0 2 HEXDIG, Ch
        58 58, Rep 4 4 h16_colon, ls32, Ch 93 93], [Rep 0 2 HEXDIG, Ch 58 58, Rep 3 3 h16_colon,
        ls32, Ch 93 93], [Rep 0 2 HEXDIG, Ch 58 58, Rep 2 2 h16_colon, ls32, Ch 93 93], [Rep 0 2
        HEXDIG, Ch 58 58, h16_colon, ls32, Ch 93 93], [Rep 0 2 HEXDIG, Ch 58 58, ls32, Ch 93 93],
        [Rep 0 2 HEXDIG, Cat (Ch 58 58) h16, Ch 93 93], [Rep 0 2 HEXDIG, Ch 93 93]]]])
      else
      if s = 226 then ([-128, 48, 58, 59, 65, 71, 93, 94, 97, 103], [[[], [], [[Rep 0 1 HEXDIG, Ch
        58 58, Rep 4 4 h16_colon, ls32, Ch 93 93], [Rep 0 1 HEXDIG, Ch 58 58, Rep 3 3 h16_colon,
        ls32, Ch 93 93], [Rep 0 1 HEXDIG, Ch 58 58, Rep 2 2 h16_colon, ls32, Ch 93 93], [Rep 0 1
        HEXDIG, Ch 58 58, h16_colon, ls32, Ch 93 93], [Rep 0 1 HEXDIG, Ch 58 58, ls32, Ch 93 93],
        [Rep 0 1 HEXDIG, Cat (Ch 58 58) h16, Ch 93 93], [Rep 0 1 HEXDIG, Ch 93 93]]]])
      else
      if s = 227 then ([-128, 58, 59, 93, 94], [[[], [], [[Ch 58 58, Rep 4 4 h16_colon, ls32, Ch
        93 93], [Ch 58 58, Rep 3 3 h16_colon, ls32, Ch 93 93], [Ch 58 58, Rep 2 2 h16_colon, ls32,
        Ch 93 93], [Ch 58 58, h16_colon, ls32, Ch 93 93], [Ch 58 58, ls32, Ch 93 93], [Cat (Ch 58
        58) h16, Ch 93 93], [Ch 93 93]]]])
      else
      ([-128, 48, 49, 50, 51, 58, 65, 71, 97, 103], [[[], [], [[Rep 4 4 h16_colon, ls32, Ch 93
        93], [Rep 3 3 h16_colon, ls32, Ch 93 93], [Rep 2 2 h16_colon, ls32, Ch 93 93], [h16_colon,
        ls32, Ch 93 93], [ls32, Ch 93 93], [h16, Ch 93 93]]]]))"

definition ip_expects_20 :: certificate where
  "ip_expects_20 s =
     (if s = 229 then ([-128, 46, 47, 48, 58, 59, 65, 71, 93, 94, 97, 103], [[[], [], [[Rep 0 3
        HEXDIG, Ch 58 58, Rep 4 4 h16_colon, ls32, Ch 93 93], [Rep 0 3 HEXDIG, Ch 58 58, Rep 3 3
        h16_colon, ls32, Ch 93 93], [Rep 0 3 HEXDIG, Ch 58 58, Rep 2 2 h16_colon, ls32, Ch 93 93],
        [Rep 0 3 HEXDIG, Ch 58 58, h16_colon, ls32, Ch 93 93], [Rep 0 3 HEXDIG, Ch 58 58, ls32, Ch
        93 93], [Rep 0 3 HEXDIG, Cat (Ch 58 58) h16, Ch 93 93], [Cat (Ch 46 46) (Cat dec_octet
        (Cat (Ch 46 46) (Cat dec_octet (Cat (Ch 46 46) dec_octet)))), Ch 93 93], [DIGIT, Cat (Ch
        46 46) (Cat dec_octet (Cat (Ch 46 46) (Cat dec_octet (Cat (Ch 46 46) dec_octet)))), Ch 93
        93], [Rep 2 2 DIGIT, Cat (Ch 46 46) (Cat dec_octet (Cat (Ch 46 46) (Cat dec_octet (Cat (Ch
        46 46) dec_octet)))), Ch 93 93], [Rep 0 3 HEXDIG, Ch 93 93]]]])
      else
      if s = 230 then ([-128, 46, 47, 48, 58, 59, 65, 71, 93, 94, 97, 103], [[[], [], [[Rep 0 2
        HEXDIG, Ch 58 58, Rep 4 4 h16_colon, ls32, Ch 93 93], [Rep 0 2 HEXDIG, Ch 58 58, Rep 3 3
        h16_colon, ls32, Ch 93 93], [Rep 0 2 HEXDIG, Ch 58 58, Rep 2 2 h16_colon, ls32, Ch 93 93],
        [Rep 0 2 HEXDIG, Ch 58 58, h16_colon, ls32, Ch 93 93], [Rep 0 2 HEXDIG, Ch 58 58, ls32, Ch
        93 93], [Rep 0 2 HEXDIG, Cat (Ch 58 58) h16, Ch 93 93], [Cat (Ch 46 46) (Cat dec_octet
        (Cat (Ch 46 46) (Cat dec_octet (Cat (Ch 46 46) dec_octet)))), Ch 93 93], [DIGIT, Cat (Ch
        46 46) (Cat dec_octet (Cat (Ch 46 46) (Cat dec_octet (Cat (Ch 46 46) dec_octet)))), Ch 93
        93], [Rep 0 2 HEXDIG, Ch 93 93]]]])
      else
      if s = 231 then ([-128, 46, 47, 48, 58, 59, 65, 71, 93, 94, 97, 103], [[[], [], [[Rep 0 1
        HEXDIG, Ch 58 58, Rep 4 4 h16_colon, ls32, Ch 93 93], [Rep 0 1 HEXDIG, Ch 58 58, Rep 3 3
        h16_colon, ls32, Ch 93 93], [Rep 0 1 HEXDIG, Ch 58 58, Rep 2 2 h16_colon, ls32, Ch 93 93],
        [Rep 0 1 HEXDIG, Ch 58 58, h16_colon, ls32, Ch 93 93], [Rep 0 1 HEXDIG, Ch 58 58, ls32, Ch
        93 93], [Rep 0 1 HEXDIG, Cat (Ch 58 58) h16, Ch 93 93], [Cat (Ch 46 46) (Cat dec_octet
        (Cat (Ch 46 46) (Cat dec_octet (Cat (Ch 46 46) dec_octet)))), Ch 93 93], [Rep 0 1 HEXDIG,
        Ch 93 93]]]])
      else
      if s = 232 then ([-128, 46, 47, 48, 53, 54, 58, 59, 65, 71, 93, 94, 97, 103], [[[], [],
        [[Rep 0 3 HEXDIG, Ch 58 58, Rep 4 4 h16_colon, ls32, Ch 93 93], [Rep 0 3 HEXDIG, Ch 58 58,
        Rep 3 3 h16_colon, ls32, Ch 93 93], [Rep 0 3 HEXDIG, Ch 58 58, Rep 2 2 h16_colon, ls32, Ch
        93 93], [Rep 0 3 HEXDIG, Ch 58 58, h16_colon, ls32, Ch 93 93], [Rep 0 3 HEXDIG, Ch 58 58,
        ls32, Ch 93 93], [Rep 0 3 HEXDIG, Cat (Ch 58 58) h16, Ch 93 93], [Cat (Ch 46 46) (Cat
        dec_octet (Cat (Ch 46 46) (Cat dec_octet (Cat (Ch 46 46) dec_octet)))), Ch 93 93], [DIGIT,
        Cat (Ch 46 46) (Cat dec_octet (Cat (Ch 46 46) (Cat dec_octet (Cat (Ch 46 46)
        dec_octet)))), Ch 93 93], [Cat (Ch 48 52) DIGIT, Cat (Ch 46 46) (Cat dec_octet (Cat (Ch 46
        46) (Cat dec_octet (Cat (Ch 46 46) dec_octet)))), Ch 93 93], [Cat (Ch 53 53) (Ch 48 53),
        Cat (Ch 46 46) (Cat dec_octet (Cat (Ch 46 46) (Cat dec_octet (Cat (Ch 46 46)
        dec_octet)))), Ch 93 93], [Rep 0 3 HEXDIG, Ch 93 93]]]])
      else
      if s = 233 then ([-128, 46, 47, 48, 54, 58, 59, 65, 71, 93, 94, 97, 103], [[[], [], [[Rep 0
        2 HEXDIG, Ch 58 58, Rep 4 4 h16_colon, ls32, Ch 93 93], [Rep 0 2 HEXDIG, Ch 58 58, Rep 3 3
        h16_colon, ls32, Ch 93 93], [Rep 0 2 HEXDIG, Ch 58 58, Rep 2 2 h16_colon, ls32, Ch 93 93],
        [Rep 0 2 HEXDIG, Ch 58 58, h16_colon, ls32, Ch 93 93], [Rep 0 2 HEXDIG, Ch 58 58, ls32, Ch
        93 93], [Rep 0 2 HEXDIG, Cat (Ch 58 58) h16, Ch 93 93], [Cat (Ch 46 46) (Cat dec_octet
        (Cat (Ch 46 46) (Cat dec_octet (Cat (Ch 46 46) dec_octet)))), Ch 93 93], [Ch 48 53, Cat
        (Ch 46 46) (Cat dec_octet (Cat (Ch 46 46) (Cat dec_octet (Cat (Ch 46 46) dec_octet)))), Ch
        93 93], [Rep 0 2 HEXDIG, Ch 93 93]]]])
      else
      if s = 234 then ([-128, 46, 47, 48, 58, 59, 65, 71, 93, 94, 97, 103], [[[], [], [[Rep 0 2
        HEXDIG, Ch 58 58, Rep 4 4 h16_colon, ls32, Ch 93 93], [Rep 0 2 HEXDIG, Ch 58 58, Rep 3 3
        h16_colon, ls32, Ch 93 93], [Rep 0 2 HEXDIG, Ch 58 58, Rep 2 2 h16_colon, ls32, Ch 93 93],
        [Rep 0 2 HEXDIG, Ch 58 58, h16_colon, ls32, Ch 93 93], [Rep 0 2 HEXDIG, Ch 58 58, ls32, Ch
        93 93], [Rep 0 2 HEXDIG, Cat (Ch 58 58) h16, Ch 93 93], [Cat (Ch 46 46) (Cat dec_octet
        (Cat (Ch 46 46) (Cat dec_octet (Cat (Ch 46 46) dec_octet)))), Ch 93 93], [Rep 0 2 HEXDIG,
        Ch 93 93]]]])
      else
      if s = 235 then ([-128, 46, 47, 48, 58, 59, 65, 71, 93, 94, 97, 103], [[[], [], [[Rep 0 3
        HEXDIG, Ch 58 58, Rep 4 4 h16_colon, ls32, Ch 93 93], [Rep 0 3 HEXDIG, Ch 58 58, Rep 3 3
        h16_colon, ls32, Ch 93 93], [Rep 0 3 HEXDIG, Ch 58 58, Rep 2 2 h16_colon, ls32, Ch 93 93],
        [Rep 0 3 HEXDIG, Ch 58 58, h16_colon, ls32, Ch 93 93], [Rep 0 3 HEXDIG, Ch 58 58, ls32, Ch
        93 93], [Rep 0 3 HEXDIG, Cat (Ch 58 58) h16, Ch 93 93], [Cat (Ch 46 46) (Cat dec_octet
        (Cat (Ch 46 46) (Cat dec_octet (Cat (Ch 46 46) dec_octet)))), Ch 93 93], [DIGIT, Cat (Ch
        46 46) (Cat dec_octet (Cat (Ch 46 46) (Cat dec_octet (Cat (Ch 46 46) dec_octet)))), Ch 93
        93], [Rep 0 3 HEXDIG, Ch 93 93]]]])
      else
      if s = 236 then ([-128, 48, 58, 59, 65, 71, 93, 94, 97, 103], [[[], [], [[Rep 0 3 HEXDIG, Ch
        58 58, Rep 4 4 h16_colon, ls32, Ch 93 93], [Rep 0 3 HEXDIG, Ch 58 58, Rep 3 3 h16_colon,
        ls32, Ch 93 93], [Rep 0 3 HEXDIG, Ch 58 58, Rep 2 2 h16_colon, ls32, Ch 93 93], [Rep 0 3
        HEXDIG, Ch 58 58, h16_colon, ls32, Ch 93 93], [Rep 0 3 HEXDIG, Ch 58 58, ls32, Ch 93 93],
        [Rep 0 3 HEXDIG, Cat (Ch 58 58) h16, Ch 93 93], [Rep 0 3 HEXDIG, Ch 93 93]]]])
      else
      if s = 237 then ([-128], [[[], [], [[]]], [[[]], [], []], [[], [[]], []]])
      else
      if s = 238 then ([-128, 48, 58], [[[[], [DIGIT], [Rep 2 2 DIGIT]], [], []]])
      else
      if s = 239 then ([-128, 48, 58], [[[[], [DIGIT]], [], []]])
      else
      ([-128, 48, 53, 54, 58], [[[[], [DIGIT], [Cat (Ch 48 52) DIGIT], [Cat (Ch 53 53) (Ch 48
        53)]], [], []]]))"

definition ip_expects_21 :: certificate where
  "ip_expects_21 s =
     (if s = 241 then ([-128, 48, 54], [[[[], [Ch 48 53]], [], []]])
      else
      if s = 242 then ([-128, 48, 58], [[[], [[], [DIGIT], [Rep 2 2 DIGIT]], []]])
      else
      if s = 243 then ([-128, 48, 58], [[[], [[], [DIGIT]], []]])
      else
      if s = 244 then ([-128, 48, 53, 54, 58], [[[], [[], [DIGIT], [Cat (Ch 48 52) DIGIT], [Cat
        (Ch 53 53) (Ch 48 53)]], []]])
      else
      if s = 245 then ([-128, 48, 54], [[[], [[], [Ch 48 53]], []]])
      else
      if s = 246 then ([-128, 48, 58, 65, 71, 97, 103], [[[], [[Rep 0 3 HEXDIG]], []]])
      else
      if s = 247 then ([-128, 48, 58, 65, 71, 97, 103], [[[], [[Rep 0 2 HEXDIG]], []]])
      else
      if s = 248 then ([-128, 48, 58, 65, 71, 97, 103], [[[], [[Rep 0 1 HEXDIG]], []]])
      else
      if s = 249 then ([-128, 48, 58, 65, 71, 97, 103], [[[], [[h16], []], []]])
      else
      if s = 250 then ([-128, 48, 49, 50, 51, 58, 65, 71, 97, 103], [[[], [[ls32], [h16], []],
        []]])
      else
      if s = 251 then ([-128, 46, 47, 48, 58, 59, 65, 71, 97, 103], [[[], [[Rep 0 3 HEXDIG, Cat
        (Ch 58 58) h16], [Cat (Ch 46 46) (Cat dec_octet (Cat (Ch 46 46) (Cat dec_octet (Cat (Ch 46
        46) dec_octet))))], [Rep 0 3 HEXDIG]], []]])
      else
      ([-128, 48, 58, 59, 65, 71, 97, 103], [[[], [[Rep 0 2 HEXDIG, Cat (Ch 58 58) h16], [Rep 0 2
        HEXDIG]], []]]))"

definition ip_expects_22 :: certificate where
  "ip_expects_22 s =
     (if s = 253 then ([-128, 48, 58, 59, 65, 71, 97, 103], [[[], [[Rep 0 1 HEXDIG, Cat (Ch 58 58)
        h16], [Rep 0 1 HEXDIG]], []]])
      else
      if s = 254 then ([-128, 58, 59], [[[], [[Cat (Ch 58 58) h16], []], []]])
      else
      if s = 255 then ([-128, 46, 47, 48, 58, 59, 65, 71, 97, 103], [[[], [[Rep 0 3 HEXDIG, Cat
        (Ch 58 58) h16], [Cat (Ch 46 46) (Cat dec_octet (Cat (Ch 46 46) (Cat dec_octet (Cat (Ch 46
        46) dec_octet))))], [DIGIT, Cat (Ch 46 46) (Cat dec_octet (Cat (Ch 46 46) (Cat dec_octet
        (Cat (Ch 46 46) dec_octet))))], [Rep 2 2 DIGIT, Cat (Ch 46 46) (Cat dec_octet (Cat (Ch 46
        46) (Cat dec_octet (Cat (Ch 46 46) dec_octet))))], [Rep 0 3 HEXDIG]], []]])
      else
      if s = 256 then ([-128, 46, 47, 48, 58, 59, 65, 71, 97, 103], [[[], [[Rep 0 2 HEXDIG, Cat
        (Ch 58 58) h16], [Cat (Ch 46 46) (Cat dec_octet (Cat (Ch 46 46) (Cat dec_octet (Cat (Ch 46
        46) dec_octet))))], [DIGIT, Cat (Ch 46 46) (Cat dec_octet (Cat (Ch 46 46) (Cat dec_octet
        (Cat (Ch 46 46) dec_octet))))], [Rep 0 2 HEXDIG]], []]])
      else
      if s = 257 then ([-128, 46, 47, 48, 58, 59, 65, 71, 97, 103], [[[], [[Rep 0 1 HEXDIG, Cat
        (Ch 58 58) h16], [Cat (Ch 46 46) (Cat dec_octet (Cat (Ch 46 46) (Cat dec_octet (Cat (Ch 46
        46) dec_octet))))], [Rep 0 1 HEXDIG]], []]])
      else
      if s = 258 then ([-128, 46, 47, 48, 53, 54, 58, 59, 65, 71, 97, 103], [[[], [[Rep 0 3
        HEXDIG, Cat (Ch 58 58) h16], [Cat (Ch 46 46) (Cat dec_octet (Cat (Ch 46 46) (Cat dec_octet
        (Cat (Ch 46 46) dec_octet))))], [DIGIT, Cat (Ch 46 46) (Cat dec_octet (Cat (Ch 46 46) (Cat
        dec_octet (Cat (Ch 46 46) dec_octet))))], [Cat (Ch 48 52) DIGIT, Cat (Ch 46 46) (Cat
        dec_octet (Cat (Ch 46 46) (Cat dec_octet (Cat (Ch 46 46) dec_octet))))], [Cat (Ch 53 53)
        (Ch 48 53), Cat (Ch 46 46) (Cat dec_octet (Cat (Ch 46 46) (Cat dec_octet (Cat (Ch 46 46)
        dec_octet))))], [Rep 0 3 HEXDIG]], []]])
      else
      if s = 259 then ([-128, 46, 47, 48, 54, 58, 59, 65, 71, 97, 103], [[[], [[Rep 0 2 HEXDIG,
        Cat (Ch 58 58) h16], [Cat (Ch 46 46) (Cat dec_octet (Cat (Ch 46 46) (Cat dec_octet (Cat
        (Ch 46 46) dec_octet))))], [Ch 48 53, Cat (Ch 46 46) (Cat dec_octet (Cat (Ch 46 46) (Cat
        dec_octet (Cat (Ch 46 46) dec_octet))))], [Rep 0 2 HEXDIG]], []]])
      else
      if s = 260 then ([-128, 46, 47, 48, 58, 59, 65, 71, 97, 103], [[[], [[Rep 0 2 HEXDIG, Cat
        (Ch 58 58) h16], [Cat (Ch 46 46) (Cat dec_octet (Cat (Ch 46 46) (Cat dec_octet (Cat (Ch 46
        46) dec_octet))))], [Rep 0 2 HEXDIG]], []]])
      else
      if s = 261 then ([-128, 46, 47, 48, 58, 59, 65, 71, 97, 103], [[[], [[Rep 0 3 HEXDIG, Cat
        (Ch 58 58) h16], [Cat (Ch 46 46) (Cat dec_octet (Cat (Ch 46 46) (Cat dec_octet (Cat (Ch 46
        46) dec_octet))))], [DIGIT, Cat (Ch 46 46) (Cat dec_octet (Cat (Ch 46 46) (Cat dec_octet
        (Cat (Ch 46 46) dec_octet))))], [Rep 0 3 HEXDIG]], []]])
      else
      if s = 262 then ([-128, 48, 58, 59, 65, 71, 97, 103], [[[], [[Rep 0 3 HEXDIG, Cat (Ch 58 58)
        h16], [Rep 0 3 HEXDIG]], []]])
      else
      if s = 263 then ([-128, 48, 49, 50, 51, 58, 65, 71, 97, 103], [[[], [[Cat h16_colon ls32],
        [ls32], [h16], []], []]])
      else
      ([-128, 46, 47, 48, 58, 59, 65, 71, 97, 103], [[[], [[Rep 0 3 HEXDIG, Ch 58 58, ls32], [Rep
        0 3 HEXDIG, Cat (Ch 58 58) h16], [Cat (Ch 46 46) (Cat dec_octet (Cat (Ch 46 46) (Cat
        dec_octet (Cat (Ch 46 46) dec_octet))))], [Rep 0 3 HEXDIG]], []]]))"

definition ip_expects_23 :: certificate where
  "ip_expects_23 s =
     (if s = 265 then ([-128, 48, 58, 59, 65, 71, 97, 103], [[[], [[Rep 0 2 HEXDIG, Ch 58 58,
        ls32], [Rep 0 2 HEXDIG, Cat (Ch 58 58) h16], [Rep 0 2 HEXDIG]], []]])
      else
      if s = 266 then ([-128, 48, 58, 59, 65, 71, 97, 103], [[[], [[Rep 0 1 HEXDIG, Ch 58 58,
        ls32], [Rep 0 1 HEXDIG, Cat (Ch 58 58) h16], [Rep 0 1 HEXDIG]], []]])
      else
      if s = 267 then ([-128, 58, 59], [[[], [[Ch 58 58, ls32], [Cat (Ch 58 58) h16], []], []]])
      else
      if s = 268 then ([-128, 46, 47, 48, 58, 59, 65, 71, 97, 103], [[[], [[Rep 0 3 HEXDIG, Ch 58
        58, ls32], [Rep 0 3 HEXDIG, Cat (Ch 58 58) h16], [Cat (Ch 46 46) (Cat dec_octet (Cat (Ch
        46 46) (Cat dec_octet (Cat (Ch 46 46) dec_octet))))], [DIGIT, Cat (Ch 46 46) (Cat
        dec_octet (Cat (Ch 46 46) (Cat dec_octet (Cat (Ch 46 46) dec_octet))))], [Rep 2 2 DIGIT,
        Cat (Ch 46 46) (Cat dec_octet (Cat (Ch 46 46) (Cat dec_octet (Cat (Ch 46 46)
        dec_octet))))], [Rep 0 3 HEXDIG]], []]])
      else
      if s = 269 then ([-128, 46, 47, 48, 58, 59, 65, 71, 97, 103], [[[], [[Rep 0 2 HEXDIG, Ch 58
        58, ls32], [Rep 0 2 HEXDIG, Cat (Ch 58 58) h16], [Cat (Ch 46 46) (Cat dec_octet (Cat (Ch
        46 46) (Cat dec_octet (Cat (Ch 46 46) dec_octet))))], [DIGIT, Cat (Ch 46 46) (Cat
        dec_octet (Cat (Ch 46 46) (Cat dec_octet (Cat (Ch 46 46) dec_octet))))], [Rep 0 2
        HEXDIG]], []]])
      else
      if s = 270 then ([-128, 46, 47, 48, 58, 59, 65, 71, 97, 103], [[[], [[Rep 0 1 HEXDIG, Ch 58
        58, ls32], [Rep 0 1 HEXDIG, Cat (Ch 58 58) h16], [Cat (Ch 46 46) (Cat dec_octet (Cat (Ch
        46 46) (Cat dec_octet (Cat (Ch 46 46) dec_octet))))], [Rep 0 1 HEXDIG]], []]])
      else
      if s = 271 then ([-128, 46, 47, 48, 53, 54, 58, 59, 65, 71, 97, 103], [[[], [[Rep 0 3
        HEXDIG, Ch 58 58, ls32], [Rep 0 3 HEXDIG, Cat (Ch 58 58) h16], [Cat (Ch 46 46) (Cat
        dec_octet (Cat (Ch 46 46) (Cat dec_octet (Cat (Ch 46 46) dec_octet))))], [DIGIT, Cat (Ch
        46 46) (Cat dec_octet (Cat (Ch 46 46) (Cat dec_octet (Cat (Ch 46 46) dec_octet))))], [Cat
        (Ch 48 52) DIGIT, Cat (Ch 46 46) (Cat dec_octet (Cat (Ch 46 46) (Cat dec_octet (Cat (Ch 46
        46) dec_octet))))], [Cat (Ch 53 53) (Ch 48 53), Cat (Ch 46 46) (Cat dec_octet (Cat (Ch 46
        46) (Cat dec_octet (Cat (Ch 46 46) dec_octet))))], [Rep 0 3 HEXDIG]], []]])
      else
      if s = 272 then ([-128, 46, 47, 48, 54, 58, 59, 65, 71, 97, 103], [[[], [[Rep 0 2 HEXDIG, Ch
        58 58, ls32], [Rep 0 2 HEXDIG, Cat (Ch 58 58) h16], [Cat (Ch 46 46) (Cat dec_octet (Cat
        (Ch 46 46) (Cat dec_octet (Cat (Ch 46 46) dec_octet))))], [Ch 48 53, Cat (Ch 46 46) (Cat
        dec_octet (Cat (Ch 46 46) (Cat dec_octet (Cat (Ch 46 46) dec_octet))))], [Rep 0 2
        HEXDIG]], []]])
      else
      if s = 273 then ([-128, 46, 47, 48, 58, 59, 65, 71, 97, 103], [[[], [[Rep 0 2 HEXDIG, Ch 58
        58, ls32], [Rep 0 2 HEXDIG, Cat (Ch 58 58) h16], [Cat (Ch 46 46) (Cat dec_octet (Cat (Ch
        46 46) (Cat dec_octet (Cat (Ch 46 46) dec_octet))))], [Rep 0 2 HEXDIG]], []]])
      else
      if s = 274 then ([-128, 46, 47, 48, 58, 59, 65, 71, 97, 103], [[[], [[Rep 0 3 HEXDIG, Ch 58
        58, ls32], [Rep 0 3 HEXDIG, Cat (Ch 58 58) h16], [Cat (Ch 46 46) (Cat dec_octet (Cat (Ch
        46 46) (Cat dec_octet (Cat (Ch 46 46) dec_octet))))], [DIGIT, Cat (Ch 46 46) (Cat
        dec_octet (Cat (Ch 46 46) (Cat dec_octet (Cat (Ch 46 46) dec_octet))))], [Rep 0 3
        HEXDIG]], []]])
      else
      if s = 275 then ([-128, 48, 58, 59, 65, 71, 97, 103], [[[], [[Rep 0 3 HEXDIG, Ch 58 58,
        ls32], [Rep 0 3 HEXDIG, Cat (Ch 58 58) h16], [Rep 0 3 HEXDIG]], []]])
      else
      ([-128, 48, 49, 50, 51, 58, 65, 71, 97, 103], [[[], [[Cat (Rep 2 2 h16_colon) ls32], [Cat
        h16_colon ls32], [ls32], [h16], []], []]]))"

definition ip_expects_24 :: certificate where
  "ip_expects_24 s =
     (if s = 277 then ([-128, 46, 47, 48, 58, 59, 65, 71, 97, 103], [[[], [[Rep 0 3 HEXDIG, Ch 58
        58, h16_colon, ls32], [Rep 0 3 HEXDIG, Ch 58 58, ls32], [Rep 0 3 HEXDIG, Cat (Ch 58 58)
        h16], [Cat (Ch 46 46) (Cat dec_octet (Cat (Ch 46 46) (Cat dec_octet (Cat (Ch 46 46)
        dec_octet))))], [Rep 0 3 HEXDIG]], []]])
      else
      if s = 278 then ([-128, 48, 58, 59, 65, 71, 97, 103], [[[], [[Rep 0 2 HEXDIG, Ch 58 58,
        h16_colon, ls32], [Rep 0 2 HEXDIG, Ch 58 58, ls32], [Rep 0 2 HEXDIG, Cat (Ch 58 58) h16],
        [Rep 0 2 HEXDIG]], []]])
      else
      if s = 279 then ([-128, 48, 58, 59, 65, 71, 97, 103], [[[], [[Rep 0 1 HEXDIG, Ch 58 58,
        h16_colon, ls32], [Rep 0 1 HEXDIG, Ch 58 58, ls32], [Rep 0 1 HEXDIG, Cat (Ch 58 58) h16],
        [Rep 0 1 HEXDIG]], []]])
      else
      if s = 280 then ([-128, 58, 59], [[[], [[Ch 58 58, h16_colon, ls32], [Ch 58 58, ls32], [Cat
        (Ch 58 58) h16], []], []]])
      else
      if s = 281 then ([-128, 46, 47, 48, 58, 59, 65, 71, 97, 103], [[[], [[Rep 0 3 HEXDIG, Ch 58
        58, h16_colon, ls32], [Rep 0 3 HEXDIG, Ch 58 58, ls32], [Rep 0 3 HEXDIG, Cat (Ch 58 58)
        h16], [Cat (Ch 46 46) (Cat dec_octet (Cat (Ch 46 46) (Cat dec_octet (Cat (Ch 46 46)
        dec_octet))))], [DIGIT, Cat (Ch 46 46) (Cat dec_octet (Cat (Ch 46 46) (Cat dec_octet (Cat
        (Ch 46 46) dec_octet))))], [Rep 2 2 DIGIT, Cat (Ch 46 46) (Cat dec_octet (Cat (Ch 46 46)
        (Cat dec_octet (Cat (Ch 46 46) dec_octet))))], [Rep 0 3 HEXDIG]], []]])
      else
      if s = 282 then ([-128, 46, 47, 48, 58, 59, 65, 71, 97, 103], [[[], [[Rep 0 2 HEXDIG, Ch 58
        58, h16_colon, ls32], [Rep 0 2 HEXDIG, Ch 58 58, ls32], [Rep 0 2 HEXDIG, Cat (Ch 58 58)
        h16], [Cat (Ch 46 46) (Cat dec_octet (Cat (Ch 46 46) (Cat dec_octet (Cat (Ch 46 46)
        dec_octet))))], [DIGIT, Cat (Ch 46 46) (Cat dec_octet (Cat (Ch 46 46) (Cat dec_octet (Cat
        (Ch 46 46) dec_octet))))], [Rep 0 2 HEXDIG]], []]])
      else
      if s = 283 then ([-128, 46, 47, 48, 58, 59, 65, 71, 97, 103], [[[], [[Rep 0 1 HEXDIG, Ch 58
        58, h16_colon, ls32], [Rep 0 1 HEXDIG, Ch 58 58, ls32], [Rep 0 1 HEXDIG, Cat (Ch 58 58)
        h16], [Cat (Ch 46 46) (Cat dec_octet (Cat (Ch 46 46) (Cat dec_octet (Cat (Ch 46 46)
        dec_octet))))], [Rep 0 1 HEXDIG]], []]])
      else
      if s = 284 then ([-128, 46, 47, 48, 53, 54, 58, 59, 65, 71, 97, 103], [[[], [[Rep 0 3
        HEXDIG, Ch 58 58, h16_colon, ls32], [Rep 0 3 HEXDIG, Ch 58 58, ls32], [Rep 0 3 HEXDIG, Cat
        (Ch 58 58) h16], [Cat (Ch 46 46) (Cat dec_octet (Cat (Ch 46 46) (Cat dec_octet (Cat (Ch 46
        46) dec_octet))))], [DIGIT, Cat (Ch 46 46) (Cat dec_octet (Cat (Ch 46 46) (Cat dec_octet
        (Cat (Ch 46 46) dec_octet))))], [Cat (Ch 48 52) DIGIT, Cat (Ch 46 46) (Cat dec_octet (Cat
        (Ch 46 46) (Cat dec_octet (Cat (Ch 46 46) dec_octet))))], [Cat (Ch 53 53) (Ch 48 53), Cat
        (Ch 46 46) (Cat dec_octet (Cat (Ch 46 46) (Cat dec_octet (Cat (Ch 46 46) dec_octet))))],
        [Rep 0 3 HEXDIG]], []]])
      else
      if s = 285 then ([-128, 46, 47, 48, 54, 58, 59, 65, 71, 97, 103], [[[], [[Rep 0 2 HEXDIG, Ch
        58 58, h16_colon, ls32], [Rep 0 2 HEXDIG, Ch 58 58, ls32], [Rep 0 2 HEXDIG, Cat (Ch 58 58)
        h16], [Cat (Ch 46 46) (Cat dec_octet (Cat (Ch 46 46) (Cat dec_octet (Cat (Ch 46 46)
        dec_octet))))], [Ch 48 53, Cat (Ch 46 46) (Cat dec_octet (Cat (Ch 46 46) (Cat dec_octet
        (Cat (Ch 46 46) dec_octet))))], [Rep 0 2 HEXDIG]], []]])
      else
      if s = 286 then ([-128, 46, 47, 48, 58, 59, 65, 71, 97, 103], [[[], [[Rep 0 2 HEXDIG, Ch 58
        58, h16_colon, ls32], [Rep 0 2 HEXDIG, Ch 58 58, ls32], [Rep 0 2 HEXDIG, Cat (Ch 58 58)
        h16], [Cat (Ch 46 46) (Cat dec_octet (Cat (Ch 46 46) (Cat dec_octet (Cat (Ch 46 46)
        dec_octet))))], [Rep 0 2 HEXDIG]], []]])
      else
      if s = 287 then ([-128, 46, 47, 48, 58, 59, 65, 71, 97, 103], [[[], [[Rep 0 3 HEXDIG, Ch 58
        58, h16_colon, ls32], [Rep 0 3 HEXDIG, Ch 58 58, ls32], [Rep 0 3 HEXDIG, Cat (Ch 58 58)
        h16], [Cat (Ch 46 46) (Cat dec_octet (Cat (Ch 46 46) (Cat dec_octet (Cat (Ch 46 46)
        dec_octet))))], [DIGIT, Cat (Ch 46 46) (Cat dec_octet (Cat (Ch 46 46) (Cat dec_octet (Cat
        (Ch 46 46) dec_octet))))], [Rep 0 3 HEXDIG]], []]])
      else
      ([-128, 48, 58, 59, 65, 71, 97, 103], [[[], [[Rep 0 3 HEXDIG, Ch 58 58, h16_colon, ls32],
        [Rep 0 3 HEXDIG, Ch 58 58, ls32], [Rep 0 3 HEXDIG, Cat (Ch 58 58) h16], [Rep 0 3 HEXDIG]],
        []]]))"

definition ip_expects_25 :: certificate where
  "ip_expects_25 s =
     (if s = 289 then ([-128, 48, 49, 50, 51, 58, 65, 71, 97, 103], [[[], [[Cat (Rep 3 3
        h16_colon) ls32], [Cat (Rep 2 2 h16_colon) ls32], [Cat h16_colon ls32], [ls32], [h16],
        []], []]])
      else
      if s = 290 then ([-128, 46, 47, 48, 58, 59, 65, 71, 97, 103], [[[], [[Rep 0 3 HEXDIG, Ch 58
        58, Rep 2 2 h16_colon, ls32], [Rep 0 3 HEXDIG, Ch 58 58, h16_colon, ls32], [Rep 0 3
        HEXDIG, Ch 58 58, ls32], [Rep 0 3 HEXDIG, Cat (Ch 58 58) h16], [Cat (Ch 46 46) (Cat
        dec_octet (Cat (Ch 46 46) (Cat dec_octet (Cat (Ch 46 46) dec_octet))))], [Rep 0 3
        HEXDIG]], []]])
      else
      if s = 291 then ([-128, 48, 58, 59, 65, 71, 97, 103], [[[], [[Rep 0 2 HEXDIG, Ch 58 58, Rep
        2 2 h16_colon, ls32], [Rep 0 2 HEXDIG, Ch 58 58, h16_colon, ls32], [Rep 0 2 HEXDIG, Ch 58
        58, ls32], [Rep 0 2 HEXDIG, Cat (Ch 58 58) h16], [Rep 0 2 HEXDIG]], []]])
      else
      if s = 292 then ([-128, 48, 58, 59, 65, 71, 97, 103], [[[], [[Rep 0 1 HEXDIG, Ch 58 58, Rep
        2 2 h16_colon, ls32], [Rep 0 1 HEXDIG, Ch 58 58, h16_colon, ls32], [Rep 0 1 HEXDIG, Ch 58
        58, ls32], [Rep 0 1 HEXDIG, Cat (Ch 58 58) h16], [Rep 0 1 HEXDIG]], []]])
      else
      if s = 293 then ([-128, 58, 59], [[[], [[Ch 58 58, Rep 2 2 h16_colon, ls32], [Ch 58 58,
        h16_colon, ls32], [Ch 58 58, ls32], [Cat (Ch 58 58) h16], []], []]])
      else
      if s = 294 then ([-128, 46, 47, 48, 58, 59, 65, 71, 97, 103], [[[], [[Rep 0 3 HEXDIG, Ch 58
        58, Rep 2 2 h16_colon, ls32], [Rep 0 3 HEXDIG, Ch 58 58, h16_colon, ls32], [Rep 0 3
        HEXDIG, Ch 58 58, ls32], [Rep 0 3 HEXDIG, Cat (Ch 58 58) h16], [Cat (Ch 46 46) (Cat
        dec_octet (Cat (Ch 46 46) (Cat dec_octet (Cat (Ch 46 46) dec_octet))))], [DIGIT, Cat (Ch
        46 46) (Cat dec_octet (Cat (Ch 46 46) (Cat dec_octet (Cat (Ch 46 46) dec_octet))))], [Rep
        2 2 DIGIT, Cat (Ch 46 46) (Cat dec_octet (Cat (Ch 46 46) (Cat dec_octet (Cat (Ch 46 46)
        dec_octet))))], [Rep 0 3 HEXDIG]], []]])
      else
      if s = 295 then ([-128, 46, 47, 48, 58, 59, 65, 71, 97, 103], [[[], [[Rep 0 2 HEXDIG, Ch 58
        58, Rep 2 2 h16_colon, ls32], [Rep 0 2 HEXDIG, Ch 58 58, h16_colon, ls32], [Rep 0 2
        HEXDIG, Ch 58 58, ls32], [Rep 0 2 HEXDIG, Cat (Ch 58 58) h16], [Cat (Ch 46 46) (Cat
        dec_octet (Cat (Ch 46 46) (Cat dec_octet (Cat (Ch 46 46) dec_octet))))], [DIGIT, Cat (Ch
        46 46) (Cat dec_octet (Cat (Ch 46 46) (Cat dec_octet (Cat (Ch 46 46) dec_octet))))], [Rep
        0 2 HEXDIG]], []]])
      else
      if s = 296 then ([-128, 46, 47, 48, 58, 59, 65, 71, 97, 103], [[[], [[Rep 0 1 HEXDIG, Ch 58
        58, Rep 2 2 h16_colon, ls32], [Rep 0 1 HEXDIG, Ch 58 58, h16_colon, ls32], [Rep 0 1
        HEXDIG, Ch 58 58, ls32], [Rep 0 1 HEXDIG, Cat (Ch 58 58) h16], [Cat (Ch 46 46) (Cat
        dec_octet (Cat (Ch 46 46) (Cat dec_octet (Cat (Ch 46 46) dec_octet))))], [Rep 0 1
        HEXDIG]], []]])
      else
      if s = 297 then ([-128, 46, 47, 48, 53, 54, 58, 59, 65, 71, 97, 103], [[[], [[Rep 0 3
        HEXDIG, Ch 58 58, Rep 2 2 h16_colon, ls32], [Rep 0 3 HEXDIG, Ch 58 58, h16_colon, ls32],
        [Rep 0 3 HEXDIG, Ch 58 58, ls32], [Rep 0 3 HEXDIG, Cat (Ch 58 58) h16], [Cat (Ch 46 46)
        (Cat dec_octet (Cat (Ch 46 46) (Cat dec_octet (Cat (Ch 46 46) dec_octet))))], [DIGIT, Cat
        (Ch 46 46) (Cat dec_octet (Cat (Ch 46 46) (Cat dec_octet (Cat (Ch 46 46) dec_octet))))],
        [Cat (Ch 48 52) DIGIT, Cat (Ch 46 46) (Cat dec_octet (Cat (Ch 46 46) (Cat dec_octet (Cat
        (Ch 46 46) dec_octet))))], [Cat (Ch 53 53) (Ch 48 53), Cat (Ch 46 46) (Cat dec_octet (Cat
        (Ch 46 46) (Cat dec_octet (Cat (Ch 46 46) dec_octet))))], [Rep 0 3 HEXDIG]], []]])
      else
      if s = 298 then ([-128, 46, 47, 48, 54, 58, 59, 65, 71, 97, 103], [[[], [[Rep 0 2 HEXDIG, Ch
        58 58, Rep 2 2 h16_colon, ls32], [Rep 0 2 HEXDIG, Ch 58 58, h16_colon, ls32], [Rep 0 2
        HEXDIG, Ch 58 58, ls32], [Rep 0 2 HEXDIG, Cat (Ch 58 58) h16], [Cat (Ch 46 46) (Cat
        dec_octet (Cat (Ch 46 46) (Cat dec_octet (Cat (Ch 46 46) dec_octet))))], [Ch 48 53, Cat
        (Ch 46 46) (Cat dec_octet (Cat (Ch 46 46) (Cat dec_octet (Cat (Ch 46 46) dec_octet))))],
        [Rep 0 2 HEXDIG]], []]])
      else
      if s = 299 then ([-128, 46, 47, 48, 58, 59, 65, 71, 97, 103], [[[], [[Rep 0 2 HEXDIG, Ch 58
        58, Rep 2 2 h16_colon, ls32], [Rep 0 2 HEXDIG, Ch 58 58, h16_colon, ls32], [Rep 0 2
        HEXDIG, Ch 58 58, ls32], [Rep 0 2 HEXDIG, Cat (Ch 58 58) h16], [Cat (Ch 46 46) (Cat
        dec_octet (Cat (Ch 46 46) (Cat dec_octet (Cat (Ch 46 46) dec_octet))))], [Rep 0 2
        HEXDIG]], []]])
      else
      ([-128, 46, 47, 48, 58, 59, 65, 71, 97, 103], [[[], [[Rep 0 3 HEXDIG, Ch 58 58, Rep 2 2
        h16_colon, ls32], [Rep 0 3 HEXDIG, Ch 58 58, h16_colon, ls32], [Rep 0 3 HEXDIG, Ch 58 58,
        ls32], [Rep 0 3 HEXDIG, Cat (Ch 58 58) h16], [Cat (Ch 46 46) (Cat dec_octet (Cat (Ch 46
        46) (Cat dec_octet (Cat (Ch 46 46) dec_octet))))], [DIGIT, Cat (Ch 46 46) (Cat dec_octet
        (Cat (Ch 46 46) (Cat dec_octet (Cat (Ch 46 46) dec_octet))))], [Rep 0 3 HEXDIG]], []]]))"

definition ip_expects_26 :: certificate where
  "ip_expects_26 s =
     (if s = 301 then ([-128, 48, 58, 59, 65, 71, 97, 103], [[[], [[Rep 0 3 HEXDIG, Ch 58 58, Rep
        2 2 h16_colon, ls32], [Rep 0 3 HEXDIG, Ch 58 58, h16_colon, ls32], [Rep 0 3 HEXDIG, Ch 58
        58, ls32], [Rep 0 3 HEXDIG, Cat (Ch 58 58) h16], [Rep 0 3 HEXDIG]], []]])
      else
      if s = 302 then ([-128, 48, 49, 50, 51, 58, 65, 71, 97, 103], [[[], [[Cat (Rep 4 4
        h16_colon) ls32], [Cat (Rep 3 3 h16_colon) ls32], [Cat (Rep 2 2 h16_colon) ls32], [Cat
        h16_colon ls32], [ls32], [h16], []], []]])
      else
      if s = 303 then ([-128, 46, 47, 48, 58, 59, 65, 71, 97, 103], [[[], [[Rep 0 3 HEXDIG, Ch 58
        58, Rep 3 3 h16_colon, ls32], [Rep 0 3 HEXDIG, Ch 58 58, Rep 2 2 h16_colon, ls32], [Rep 0
        3 HEXDIG, Ch 58 58, h16_colon, ls32], [Rep 0 3 HEXDIG, Ch 58 58, ls32], [Rep 0 3 HEXDIG,
        Cat (Ch 58 58) h16], [Cat (Ch 46 46) (Cat dec_octet (Cat (Ch 46 46) (Cat dec_octet (Cat
        (Ch 46 46) dec_octet))))], [Rep 0 3 HEXDIG]], []]])
      else
      if s = 304 then ([-128, 48, 58, 59, 65, 71, 97, 103], [[[], [[Rep 0 2 HEXDIG, Ch 58 58, Rep
        3 3 h16_colon, ls32], [Rep 0 2 HEXDIG, Ch 58 58, Rep 2 2 h16_colon, ls32], [Rep 0 2
        HEXDIG, Ch 58 58, h16_colon, ls32], [Rep 0 2 HEXDIG, Ch 58 58, ls32], [Rep 0 2 HEXDIG, Cat
        (Ch 58 58) h16], [Rep 0 2 HEXDIG]], []]])
      else
      if s = 305 then ([-128, 48, 58, 59, 65, 71, 97, 103], [[[], [[Rep 0 1 HEXDIG, Ch 58 58, Rep
        3 3 h16_colon, ls32], [Rep 0 1 HEXDIG, Ch 58 58, Rep 2 2 h16_colon, ls32], [Rep 0 1
        HEXDIG, Ch 58 58, h16_colon, ls32], [Rep 0 1 HEXDIG, Ch 58 58, ls32], [Rep 0 1 HEXDIG, Cat
        (Ch 58 58) h16], [Rep 0 1 HEXDIG]], []]])
      else
      if s = 306 then ([-128, 58, 59], [[[], [[Ch 58 58, Rep 3 3 h16_colon, ls32], [Ch 58 58, Rep
        2 2 h16_colon, ls32], [Ch 58 58, h16_colon, ls32], [Ch 58 58, ls32], [Cat (Ch 58 58) h16],
        []], []]])
      else
      if s = 307 then ([-128, 46, 47, 48, 58, 59, 65, 71, 97, 103], [[[], [[Rep 0 3 HEXDIG, Ch 58
        58, Rep 3 3 h16_colon, ls32], [Rep 0 3 HEXDIG, Ch 58 58, Rep 2 2 h16_colon, ls32], [Rep 0
        3 HEXDIG, Ch 58 58, h16_colon, ls32], [Rep 0 3 HEXDIG, Ch 58 58, ls32], [Rep 0 3 HEXDIG,
        Cat (Ch 58 58) h16], [Cat (Ch 46 46) (Cat dec_octet (Cat (Ch 46 46) (Cat dec_octet (Cat
        (Ch 46 46) dec_octet))))], [DIGIT, Cat (Ch 46 46) (Cat dec_octet (Cat (Ch 46 46) (Cat
        dec_octet (Cat (Ch 46 46) dec_octet))))], [Rep 2 2 DIGIT, Cat (Ch 46 46) (Cat dec_octet
        (Cat (Ch 46 46) (Cat dec_octet (Cat (Ch 46 46) dec_octet))))], [Rep 0 3 HEXDIG]], []]])
      else
      if s = 308 then ([-128, 46, 47, 48, 58, 59, 65, 71, 97, 103], [[[], [[Rep 0 2 HEXDIG, Ch 58
        58, Rep 3 3 h16_colon, ls32], [Rep 0 2 HEXDIG, Ch 58 58, Rep 2 2 h16_colon, ls32], [Rep 0
        2 HEXDIG, Ch 58 58, h16_colon, ls32], [Rep 0 2 HEXDIG, Ch 58 58, ls32], [Rep 0 2 HEXDIG,
        Cat (Ch 58 58) h16], [Cat (Ch 46 46) (Cat dec_octet (Cat (Ch 46 46) (Cat dec_octet (Cat
        (Ch 46 46) dec_octet))))], [DIGIT, Cat (Ch 46 46) (Cat dec_octet (Cat (Ch 46 46) (Cat
        dec_octet (Cat (Ch 46 46) dec_octet))))], [Rep 0 2 HEXDIG]], []]])
      else
      if s = 309 then ([-128, 46, 47, 48, 58, 59, 65, 71, 97, 103], [[[], [[Rep 0 1 HEXDIG, Ch 58
        58, Rep 3 3 h16_colon, ls32], [Rep 0 1 HEXDIG, Ch 58 58, Rep 2 2 h16_colon, ls32], [Rep 0
        1 HEXDIG, Ch 58 58, h16_colon, ls32], [Rep 0 1 HEXDIG, Ch 58 58, ls32], [Rep 0 1 HEXDIG,
        Cat (Ch 58 58) h16], [Cat (Ch 46 46) (Cat dec_octet (Cat (Ch 46 46) (Cat dec_octet (Cat
        (Ch 46 46) dec_octet))))], [Rep 0 1 HEXDIG]], []]])
      else
      if s = 310 then ([-128, 46, 47, 48, 53, 54, 58, 59, 65, 71, 97, 103], [[[], [[Rep 0 3
        HEXDIG, Ch 58 58, Rep 3 3 h16_colon, ls32], [Rep 0 3 HEXDIG, Ch 58 58, Rep 2 2 h16_colon,
        ls32], [Rep 0 3 HEXDIG, Ch 58 58, h16_colon, ls32], [Rep 0 3 HEXDIG, Ch 58 58, ls32], [Rep
        0 3 HEXDIG, Cat (Ch 58 58) h16], [Cat (Ch 46 46) (Cat dec_octet (Cat (Ch 46 46) (Cat
        dec_octet (Cat (Ch 46 46) dec_octet))))], [DIGIT, Cat (Ch 46 46) (Cat dec_octet (Cat (Ch
        46 46) (Cat dec_octet (Cat (Ch 46 46) dec_octet))))], [Cat (Ch 48 52) DIGIT, Cat (Ch 46
        46) (Cat dec_octet (Cat (Ch 46 46) (Cat dec_octet (Cat (Ch 46 46) dec_octet))))], [Cat (Ch
        53 53) (Ch 48 53), Cat (Ch 46 46) (Cat dec_octet (Cat (Ch 46 46) (Cat dec_octet (Cat (Ch
        46 46) dec_octet))))], [Rep 0 3 HEXDIG]], []]])
      else
      if s = 311 then ([-128, 46, 47, 48, 54, 58, 59, 65, 71, 97, 103], [[[], [[Rep 0 2 HEXDIG, Ch
        58 58, Rep 3 3 h16_colon, ls32], [Rep 0 2 HEXDIG, Ch 58 58, Rep 2 2 h16_colon, ls32], [Rep
        0 2 HEXDIG, Ch 58 58, h16_colon, ls32], [Rep 0 2 HEXDIG, Ch 58 58, ls32], [Rep 0 2 HEXDIG,
        Cat (Ch 58 58) h16], [Cat (Ch 46 46) (Cat dec_octet (Cat (Ch 46 46) (Cat dec_octet (Cat
        (Ch 46 46) dec_octet))))], [Ch 48 53, Cat (Ch 46 46) (Cat dec_octet (Cat (Ch 46 46) (Cat
        dec_octet (Cat (Ch 46 46) dec_octet))))], [Rep 0 2 HEXDIG]], []]])
      else
      ([-128, 46, 47, 48, 58, 59, 65, 71, 97, 103], [[[], [[Rep 0 2 HEXDIG, Ch 58 58, Rep 3 3
        h16_colon, ls32], [Rep 0 2 HEXDIG, Ch 58 58, Rep 2 2 h16_colon, ls32], [Rep 0 2 HEXDIG, Ch
        58 58, h16_colon, ls32], [Rep 0 2 HEXDIG, Ch 58 58, ls32], [Rep 0 2 HEXDIG, Cat (Ch 58 58)
        h16], [Cat (Ch 46 46) (Cat dec_octet (Cat (Ch 46 46) (Cat dec_octet (Cat (Ch 46 46)
        dec_octet))))], [Rep 0 2 HEXDIG]], []]]))"

definition ip_expects_27 :: certificate where
  "ip_expects_27 s =
     (if s = 313 then ([-128, 46, 47, 48, 58, 59, 65, 71, 97, 103], [[[], [[Rep 0 3 HEXDIG, Ch 58
        58, Rep 3 3 h16_colon, ls32], [Rep 0 3 HEXDIG, Ch 58 58, Rep 2 2 h16_colon, ls32], [Rep 0
        3 HEXDIG, Ch 58 58, h16_colon, ls32], [Rep 0 3 HEXDIG, Ch 58 58, ls32], [Rep 0 3 HEXDIG,
        Cat (Ch 58 58) h16], [Cat (Ch 46 46) (Cat dec_octet (Cat (Ch 46 46) (Cat dec_octet (Cat
        (Ch 46 46) dec_octet))))], [DIGIT, Cat (Ch 46 46) (Cat dec_octet (Cat (Ch 46 46) (Cat
        dec_octet (Cat (Ch 46 46) dec_octet))))], [Rep 0 3 HEXDIG]], []]])
      else
      if s = 314 then ([-128, 48, 58, 59, 65, 71, 97, 103], [[[], [[Rep 0 3 HEXDIG, Ch 58 58, Rep
        3 3 h16_colon, ls32], [Rep 0 3 HEXDIG, Ch 58 58, Rep 2 2 h16_colon, ls32], [Rep 0 3
        HEXDIG, Ch 58 58, h16_colon, ls32], [Rep 0 3 HEXDIG, Ch 58 58, ls32], [Rep 0 3 HEXDIG, Cat
        (Ch 58 58) h16], [Rep 0 3 HEXDIG]], []]])
      else
      if s = 315 then ([-128, 48, 49, 50, 51, 58, 65, 71, 97, 103], [[[], [[Cat (Rep 5 5
        h16_colon) ls32], [Cat (Rep 4 4 h16_colon) ls32], [Cat (Rep 3 3 h16_colon) ls32], [Cat
        (Rep 2 2 h16_colon) ls32], [Cat h16_colon ls32], [ls32], [h16], []], []]])
      else
      if s = 316 then ([-128, 46, 47, 48, 58, 59, 65, 71, 97, 103], [[[], [[Rep 0 3 HEXDIG, Ch 58
        58, Rep 4 4 h16_colon, ls32], [Rep 0 3 HEXDIG, Ch 58 58, Rep 3 3 h16_colon, ls32], [Rep 0
        3 HEXDIG, Ch 58 58, Rep 2 2 h16_colon, ls32], [Rep 0 3 HEXDIG, Ch 58 58, h16_colon, ls32],
        [Rep 0 3 HEXDIG, Ch 58 58, ls32], [Rep 0 3 HEXDIG, Cat (Ch 58 58) h16], [Cat (Ch 46 46)
        (Cat dec_octet (Cat (Ch 46 46) (Cat dec_octet (Cat (Ch 46 46) dec_octet))))], [Rep 0 3
        HEXDIG]], []]])
      else
      if s = 317 then ([-128, 48, 58, 59, 65, 71, 97, 103], [[[], [[Rep 0 2 HEXDIG, Ch 58 58, Rep
        4 4 h16_colon, ls32], [Rep 0 2 HEXDIG, Ch 58 58, Rep 3 3 h16_colon, ls32], [Rep 0 2
        HEXDIG, Ch 58 58, Rep 2 2 h16_colon, ls32], [Rep 0 2 HEXDIG, Ch 58 58, h16_colon, ls32],
        [Rep 0 2 HEXDIG, Ch 58 58, ls32], [Rep 0 2 HEXDIG, Cat (Ch 58 58) h16], [Rep 0 2 HEXDIG]],
        []]])
      else
      if s = 318 then ([-128, 48, 58, 59, 65, 71, 97, 103], [[[], [[Rep 0 1 HEXDIG, Ch 58 58, Rep
        4 4 h16_colon, ls32], [Rep 0 1 HEXDIG, Ch 58 58, Rep 3 3 h16_colon, ls32], [Rep 0 1
        HEXDIG, Ch 58 58, Rep 2 2 h16_colon, ls32], [Rep 0 1 HEXDIG, Ch 58 58, h16_colon, ls32],
        [Rep 0 1 HEXDIG, Ch 58 58, ls32], [Rep 0 1 HEXDIG, Cat (Ch 58 58) h16], [Rep 0 1 HEXDIG]],
        []]])
      else
      if s = 319 then ([-128, 58, 59], [[[], [[Ch 58 58, Rep 4 4 h16_colon, ls32], [Ch 58 58, Rep
        3 3 h16_colon, ls32], [Ch 58 58, Rep 2 2 h16_colon, ls32], [Ch 58 58, h16_colon, ls32],
        [Ch 58 58, ls32], [Cat (Ch 58 58) h16], []], []]])
      else
      if s = 320 then ([-128, 46, 47, 48, 58, 59, 65, 71, 97, 103], [[[], [[Rep 0 3 HEXDIG, Ch 58
        58, Rep 4 4 h16_colon, ls32], [Rep 0 3 HEXDIG, Ch 58 58, Rep 3 3 h16_colon, ls32], [Rep 0
        3 HEXDIG, Ch 58 58, Rep 2 2 h16_colon, ls32], [Rep 0 3 HEXDIG, Ch 58 58, h16_colon, ls32],
        [Rep 0 3 HEXDIG, Ch 58 58, ls32], [Rep 0 3 HEXDIG, Cat (Ch 58 58) h16], [Cat (Ch 46 46)
        (Cat dec_octet (Cat (Ch 46 46) (Cat dec_octet (Cat (Ch 46 46) dec_octet))))], [DIGIT, Cat
        (Ch 46 46) (Cat dec_octet (Cat (Ch 46 46) (Cat dec_octet (Cat (Ch 46 46) dec_octet))))],
        [Rep 2 2 DIGIT, Cat (Ch 46 46) (Cat dec_octet (Cat (Ch 46 46) (Cat dec_octet (Cat (Ch 46
        46) dec_octet))))], [Rep 0 3 HEXDIG]], []]])
      else
      if s = 321 then ([-128, 46, 47, 48, 58, 59, 65, 71, 97, 103], [[[], [[Rep 0 2 HEXDIG, Ch 58
        58, Rep 4 4 h16_colon, ls32], [Rep 0 2 HEXDIG, Ch 58 58, Rep 3 3 h16_colon, ls32], [Rep 0
        2 HEXDIG, Ch 58 58, Rep 2 2 h16_colon, ls32], [Rep 0 2 HEXDIG, Ch 58 58, h16_colon, ls32],
        [Rep 0 2 HEXDIG, Ch 58 58, ls32], [Rep 0 2 HEXDIG, Cat (Ch 58 58) h16], [Cat (Ch 46 46)
        (Cat dec_octet (Cat (Ch 46 46) (Cat dec_octet (Cat (Ch 46 46) dec_octet))))], [DIGIT, Cat
        (Ch 46 46) (Cat dec_octet (Cat (Ch 46 46) (Cat dec_octet (Cat (Ch 46 46) dec_octet))))],
        [Rep 0 2 HEXDIG]], []]])
      else
      if s = 322 then ([-128, 46, 47, 48, 58, 59, 65, 71, 97, 103], [[[], [[Rep 0 1 HEXDIG, Ch 58
        58, Rep 4 4 h16_colon, ls32], [Rep 0 1 HEXDIG, Ch 58 58, Rep 3 3 h16_colon, ls32], [Rep 0
        1 HEXDIG, Ch 58 58, Rep 2 2 h16_colon, ls32], [Rep 0 1 HEXDIG, Ch 58 58, h16_colon, ls32],
        [Rep 0 1 HEXDIG, Ch 58 58, ls32], [Rep 0 1 HEXDIG, Cat (Ch 58 58) h16], [Cat (Ch 46 46)
        (Cat dec_octet (Cat (Ch 46 46) (Cat dec_octet (Cat (Ch 46 46) dec_octet))))], [Rep 0 1
        HEXDIG]], []]])
      else
      if s = 323 then ([-128, 46, 47, 48, 53, 54, 58, 59, 65, 71, 97, 103], [[[], [[Rep 0 3
        HEXDIG, Ch 58 58, Rep 4 4 h16_colon, ls32], [Rep 0 3 HEXDIG, Ch 58 58, Rep 3 3 h16_colon,
        ls32], [Rep 0 3 HEXDIG, Ch 58 58, Rep 2 2 h16_colon, ls32], [Rep 0 3 HEXDIG, Ch 58 58,
        h16_colon, ls32], [Rep 0 3 HEXDIG, Ch 58 58, ls32], [Rep 0 3 HEXDIG, Cat (Ch 58 58) h16],
        [Cat (Ch 46 46) (Cat dec_octet (Cat (Ch 46 46) (Cat dec_octet (Cat (Ch 46 46)
        dec_octet))))], [DIGIT, Cat (Ch 46 46) (Cat dec_octet (Cat (Ch 46 46) (Cat dec_octet (Cat
        (Ch 46 46) dec_octet))))], [Cat (Ch 48 52) DIGIT, Cat (Ch 46 46) (Cat dec_octet (Cat (Ch
        46 46) (Cat dec_octet (Cat (Ch 46 46) dec_octet))))], [Cat (Ch 53 53) (Ch 48 53), Cat (Ch
        46 46) (Cat dec_octet (Cat (Ch 46 46) (Cat dec_octet (Cat (Ch 46 46) dec_octet))))], [Rep
        0 3 HEXDIG]], []]])
      else
      ([-128, 46, 47, 48, 54, 58, 59, 65, 71, 97, 103], [[[], [[Rep 0 2 HEXDIG, Ch 58 58, Rep 4 4
        h16_colon, ls32], [Rep 0 2 HEXDIG, Ch 58 58, Rep 3 3 h16_colon, ls32], [Rep 0 2 HEXDIG, Ch
        58 58, Rep 2 2 h16_colon, ls32], [Rep 0 2 HEXDIG, Ch 58 58, h16_colon, ls32], [Rep 0 2
        HEXDIG, Ch 58 58, ls32], [Rep 0 2 HEXDIG, Cat (Ch 58 58) h16], [Cat (Ch 46 46) (Cat
        dec_octet (Cat (Ch 46 46) (Cat dec_octet (Cat (Ch 46 46) dec_octet))))], [Ch 48 53, Cat
        (Ch 46 46) (Cat dec_octet (Cat (Ch 46 46) (Cat dec_octet (Cat (Ch 46 46) dec_octet))))],
        [Rep 0 2 HEXDIG]], []]]))"

definition ip_expects_28 :: certificate where
  "ip_expects_28 s =
     (if s = 325 then ([-128, 46, 47, 48, 58, 59, 65, 71, 97, 103], [[[], [[Rep 0 2 HEXDIG, Ch 58
        58, Rep 4 4 h16_colon, ls32], [Rep 0 2 HEXDIG, Ch 58 58, Rep 3 3 h16_colon, ls32], [Rep 0
        2 HEXDIG, Ch 58 58, Rep 2 2 h16_colon, ls32], [Rep 0 2 HEXDIG, Ch 58 58, h16_colon, ls32],
        [Rep 0 2 HEXDIG, Ch 58 58, ls32], [Rep 0 2 HEXDIG, Cat (Ch 58 58) h16], [Cat (Ch 46 46)
        (Cat dec_octet (Cat (Ch 46 46) (Cat dec_octet (Cat (Ch 46 46) dec_octet))))], [Rep 0 2
        HEXDIG]], []]])
      else
      if s = 326 then ([-128, 46, 47, 48, 58, 59, 65, 71, 97, 103], [[[], [[Rep 0 3 HEXDIG, Ch 58
        58, Rep 4 4 h16_colon, ls32], [Rep 0 3 HEXDIG, Ch 58 58, Rep 3 3 h16_colon, ls32], [Rep 0
        3 HEXDIG, Ch 58 58, Rep 2 2 h16_colon, ls32], [Rep 0 3 HEXDIG, Ch 58 58, h16_colon, ls32],
        [Rep 0 3 HEXDIG, Ch 58 58, ls32], [Rep 0 3 HEXDIG, Cat (Ch 58 58) h16], [Cat (Ch 46 46)
        (Cat dec_octet (Cat (Ch 46 46) (Cat dec_octet (Cat (Ch 46 46) dec_octet))))], [DIGIT, Cat
        (Ch 46 46) (Cat dec_octet (Cat (Ch 46 46) (Cat dec_octet (Cat (Ch 46 46) dec_octet))))],
        [Rep 0 3 HEXDIG]], []]])
      else
      ([-128, 48, 58, 59, 65, 71, 97, 103], [[[], [[Rep 0 3 HEXDIG, Ch 58 58, Rep 4 4 h16_colon,
        ls32], [Rep 0 3 HEXDIG, Ch 58 58, Rep 3 3 h16_colon, ls32], [Rep 0 3 HEXDIG, Ch 58 58, Rep
        2 2 h16_colon, ls32], [Rep 0 3 HEXDIG, Ch 58 58, h16_colon, ls32], [Rep 0 3 HEXDIG, Ch 58
        58, ls32], [Rep 0 3 HEXDIG, Cat (Ch 58 58) h16], [Rep 0 3 HEXDIG]], []]]))"

definition ip_expects :: certificate where
  "ip_expects s =
     (if s \<le> 12 then ip_expects_1 s else
      if s \<le> 24 then ip_expects_2 s else
      if s \<le> 36 then ip_expects_3 s else
      if s \<le> 48 then ip_expects_4 s else
      if s \<le> 60 then ip_expects_5 s else
      if s \<le> 72 then ip_expects_6 s else
      if s \<le> 84 then ip_expects_7 s else
      if s \<le> 96 then ip_expects_8 s else
      if s \<le> 108 then ip_expects_9 s else
      if s \<le> 120 then ip_expects_10 s else
      if s \<le> 132 then ip_expects_11 s else
      if s \<le> 144 then ip_expects_12 s else
      if s \<le> 156 then ip_expects_13 s else
      if s \<le> 168 then ip_expects_14 s else
      if s \<le> 180 then ip_expects_15 s else
      if s \<le> 192 then ip_expects_16 s else
      if s \<le> 204 then ip_expects_17 s else
      if s \<le> 216 then ip_expects_18 s else
      if s \<le> 228 then ip_expects_19 s else
      if s \<le> 240 then ip_expects_20 s else
      if s \<le> 252 then ip_expects_21 s else
      if s \<le> 264 then ip_expects_22 s else
      if s \<le> 276 then ip_expects_23 s else
      if s \<le> 288 then ip_expects_24 s else
      if s \<le> 300 then ip_expects_25 s else
      if s \<le> 312 then ip_expects_26 s else
      if s \<le> 324 then ip_expects_27 s else
      ip_expects_28 s)"

lemmas ip_expects_defs =
  ip_expects_def
  ip_expects_1_def ip_expects_2_def ip_expects_3_def ip_expects_4_def ip_expects_5_def
  ip_expects_6_def ip_expects_7_def ip_expects_8_def ip_expects_9_def ip_expects_10_def
  ip_expects_11_def ip_expects_12_def ip_expects_13_def ip_expects_14_def ip_expects_15_def
  ip_expects_16_def ip_expects_17_def ip_expects_18_def ip_expects_19_def ip_expects_20_def
  ip_expects_21_def ip_expects_22_def ip_expects_23_def ip_expects_24_def ip_expects_25_def
  ip_expects_26_def ip_expects_27_def ip_expects_28_def

lemmas [cert_eval] =
  ip_blocks_case ip_blocks_trans ip_expects_defs pd_ip_rules pd_ip_unfold
  first_ip_rules first_ip_unfold null_ip_rules ip_acts_ok_def enum_ip_type.distinct

lemma ip_range_1: "[1..12] = [1, 2, 3, 4, 5, 6, 7, 8, 9, 10, 11, 12]"
  by (simp add: upto_rec1)

lemma ip_rows_1: "list_all (state_ok ip_blocks ip_expects 327 ip_acts_ok) [1..12]"
  unfolding ip_range_1 by (simp only: cert_eval cong: cert_cong)

lemma ip_range_2: "[13..24] = [13, 14, 15, 16, 17, 18, 19, 20, 21, 22, 23, 24]"
  by (simp add: upto_rec1)

lemma ip_rows_2: "list_all (state_ok ip_blocks ip_expects 327 ip_acts_ok) [13..24]"
  unfolding ip_range_2 by (simp only: cert_eval cong: cert_cong)

lemma ip_range_3: "[25..36] = [25, 26, 27, 28, 29, 30, 31, 32, 33, 34, 35, 36]"
  by (simp add: upto_rec1)

lemma ip_rows_3: "list_all (state_ok ip_blocks ip_expects 327 ip_acts_ok) [25..36]"
  unfolding ip_range_3 by (simp only: cert_eval cong: cert_cong)

lemma ip_range_4: "[37..48] = [37, 38, 39, 40, 41, 42, 43, 44, 45, 46, 47, 48]"
  by (simp add: upto_rec1)

lemma ip_rows_4: "list_all (state_ok ip_blocks ip_expects 327 ip_acts_ok) [37..48]"
  unfolding ip_range_4 by (simp only: cert_eval cong: cert_cong)

lemma ip_range_5: "[49..60] = [49, 50, 51, 52, 53, 54, 55, 56, 57, 58, 59, 60]"
  by (simp add: upto_rec1)

lemma ip_rows_5: "list_all (state_ok ip_blocks ip_expects 327 ip_acts_ok) [49..60]"
  unfolding ip_range_5 by (simp only: cert_eval cong: cert_cong)

lemma ip_range_6: "[61..72] = [61, 62, 63, 64, 65, 66, 67, 68, 69, 70, 71, 72]"
  by (simp add: upto_rec1)

lemma ip_rows_6: "list_all (state_ok ip_blocks ip_expects 327 ip_acts_ok) [61..72]"
  unfolding ip_range_6 by (simp only: cert_eval cong: cert_cong)

lemma ip_range_7: "[73..84] = [73, 74, 75, 76, 77, 78, 79, 80, 81, 82, 83, 84]"
  by (simp add: upto_rec1)

lemma ip_rows_7: "list_all (state_ok ip_blocks ip_expects 327 ip_acts_ok) [73..84]"
  unfolding ip_range_7 by (simp only: cert_eval cong: cert_cong)

lemma ip_range_8: "[85..96] = [85, 86, 87, 88, 89, 90, 91, 92, 93, 94, 95, 96]"
  by (simp add: upto_rec1)

lemma ip_rows_8: "list_all (state_ok ip_blocks ip_expects 327 ip_acts_ok) [85..96]"
  unfolding ip_range_8 by (simp only: cert_eval cong: cert_cong)

lemma ip_range_9: "[97..108] = [97, 98, 99, 100, 101, 102, 103, 104, 105, 106, 107, 108]"
  by (simp add: upto_rec1)

lemma ip_rows_9: "list_all (state_ok ip_blocks ip_expects 327 ip_acts_ok) [97..108]"
  unfolding ip_range_9 by (simp only: cert_eval cong: cert_cong)

lemma ip_range_10: "[109..120] = [109, 110, 111, 112, 113, 114, 115, 116, 117, 118, 119, 120]"
  by (simp add: upto_rec1)

lemma ip_rows_10: "list_all (state_ok ip_blocks ip_expects 327 ip_acts_ok) [109..120]"
  unfolding ip_range_10 by (simp only: cert_eval cong: cert_cong)

lemma ip_range_11: "[121..132] = [121, 122, 123, 124, 125, 126, 127, 128, 129, 130, 131, 132]"
  by (simp add: upto_rec1)

lemma ip_rows_11: "list_all (state_ok ip_blocks ip_expects 327 ip_acts_ok) [121..132]"
  unfolding ip_range_11 by (simp only: cert_eval cong: cert_cong)

lemma ip_range_12: "[133..144] = [133, 134, 135, 136, 137, 138, 139, 140, 141, 142, 143, 144]"
  by (simp add: upto_rec1)

lemma ip_rows_12: "list_all (state_ok ip_blocks ip_expects 327 ip_acts_ok) [133..144]"
  unfolding ip_range_12 by (simp only: cert_eval cong: cert_cong)

lemma ip_range_13: "[145..156] = [145, 146, 147, 148, 149, 150, 151, 152, 153, 154, 155, 156]"
  by (simp add: upto_rec1)

lemma ip_rows_13: "list_all (state_ok ip_blocks ip_expects 327 ip_acts_ok) [145..156]"
  unfolding ip_range_13 by (simp only: cert_eval cong: cert_cong)

lemma ip_range_14: "[157..168] = [157, 158, 159, 160, 161, 162, 163, 164, 165, 166, 167, 168]"
  by (simp add: upto_rec1)

lemma ip_rows_14: "list_all (state_ok ip_blocks ip_expects 327 ip_acts_ok) [157..168]"
  unfolding ip_range_14 by (simp only: cert_eval cong: cert_cong)

lemma ip_range_15: "[169..180] = [169, 170, 171, 172, 173, 174, 175, 176, 177, 178, 179, 180]"
  by (simp add: upto_rec1)

lemma ip_rows_15: "list_all (state_ok ip_blocks ip_expects 327 ip_acts_ok) [169..180]"
  unfolding ip_range_15 by (simp only: cert_eval cong: cert_cong)

lemma ip_range_16: "[181..192] = [181, 182, 183, 184, 185, 186, 187, 188, 189, 190, 191, 192]"
  by (simp add: upto_rec1)

lemma ip_rows_16: "list_all (state_ok ip_blocks ip_expects 327 ip_acts_ok) [181..192]"
  unfolding ip_range_16 by (simp only: cert_eval cong: cert_cong)

lemma ip_range_17: "[193..204] = [193, 194, 195, 196, 197, 198, 199, 200, 201, 202, 203, 204]"
  by (simp add: upto_rec1)

lemma ip_rows_17: "list_all (state_ok ip_blocks ip_expects 327 ip_acts_ok) [193..204]"
  unfolding ip_range_17 by (simp only: cert_eval cong: cert_cong)

lemma ip_range_18: "[205..216] = [205, 206, 207, 208, 209, 210, 211, 212, 213, 214, 215, 216]"
  by (simp add: upto_rec1)

lemma ip_rows_18: "list_all (state_ok ip_blocks ip_expects 327 ip_acts_ok) [205..216]"
  unfolding ip_range_18 by (simp only: cert_eval cong: cert_cong)

lemma ip_range_19: "[217..228] = [217, 218, 219, 220, 221, 222, 223, 224, 225, 226, 227, 228]"
  by (simp add: upto_rec1)

lemma ip_rows_19: "list_all (state_ok ip_blocks ip_expects 327 ip_acts_ok) [217..228]"
  unfolding ip_range_19 by (simp only: cert_eval cong: cert_cong)

lemma ip_range_20: "[229..240] = [229, 230, 231, 232, 233, 234, 235, 236, 237, 238, 239, 240]"
  by (simp add: upto_rec1)

lemma ip_rows_20: "list_all (state_ok ip_blocks ip_expects 327 ip_acts_ok) [229..240]"
  unfolding ip_range_20 by (simp only: cert_eval cong: cert_cong)

lemma ip_range_21: "[241..252] = [241, 242, 243, 244, 245, 246, 247, 248, 249, 250, 251, 252]"
  by (simp add: upto_rec1)

lemma ip_rows_21: "list_all (state_ok ip_blocks ip_expects 327 ip_acts_ok) [241..252]"
  unfolding ip_range_21 by (simp only: cert_eval cong: cert_cong)

lemma ip_range_22: "[253..264] = [253, 254, 255, 256, 257, 258, 259, 260, 261, 262, 263, 264]"
  by (simp add: upto_rec1)

lemma ip_rows_22: "list_all (state_ok ip_blocks ip_expects 327 ip_acts_ok) [253..264]"
  unfolding ip_range_22 by (simp only: cert_eval cong: cert_cong)

lemma ip_range_23: "[265..276] = [265, 266, 267, 268, 269, 270, 271, 272, 273, 274, 275, 276]"
  by (simp add: upto_rec1)

lemma ip_rows_23: "list_all (state_ok ip_blocks ip_expects 327 ip_acts_ok) [265..276]"
  unfolding ip_range_23 by (simp only: cert_eval cong: cert_cong)

lemma ip_range_24: "[277..288] = [277, 278, 279, 280, 281, 282, 283, 284, 285, 286, 287, 288]"
  by (simp add: upto_rec1)

lemma ip_rows_24: "list_all (state_ok ip_blocks ip_expects 327 ip_acts_ok) [277..288]"
  unfolding ip_range_24 by (simp only: cert_eval cong: cert_cong)

lemma ip_range_25: "[289..300] = [289, 290, 291, 292, 293, 294, 295, 296, 297, 298, 299, 300]"
  by (simp add: upto_rec1)

lemma ip_rows_25: "list_all (state_ok ip_blocks ip_expects 327 ip_acts_ok) [289..300]"
  unfolding ip_range_25 by (simp only: cert_eval cong: cert_cong)

lemma ip_range_26: "[301..312] = [301, 302, 303, 304, 305, 306, 307, 308, 309, 310, 311, 312]"
  by (simp add: upto_rec1)

lemma ip_rows_26: "list_all (state_ok ip_blocks ip_expects 327 ip_acts_ok) [301..312]"
  unfolding ip_range_26 by (simp only: cert_eval cong: cert_cong)

lemma ip_range_27: "[313..324] = [313, 314, 315, 316, 317, 318, 319, 320, 321, 322, 323, 324]"
  by (simp add: upto_rec1)

lemma ip_rows_27: "list_all (state_ok ip_blocks ip_expects 327 ip_acts_ok) [313..324]"
  unfolding ip_range_27 by (simp only: cert_eval cong: cert_cong)

lemma ip_range_28: "[325..327] = [325, 326, 327]"
  by (simp add: upto_rec1)

lemma ip_rows_28: "list_all (state_ok ip_blocks ip_expects 327 ip_acts_ok) [325..327]"
  unfolding ip_range_28 by (simp only: cert_eval cong: cert_cong)

lemmas ip_rows =
  ip_rows_1 ip_rows_2 ip_rows_3 ip_rows_4 ip_rows_5 ip_rows_6 ip_rows_7 ip_rows_8 ip_rows_9
  ip_rows_10 ip_rows_11 ip_rows_12 ip_rows_13 ip_rows_14 ip_rows_15 ip_rows_16 ip_rows_17
  ip_rows_18 ip_rows_19 ip_rows_20 ip_rows_21 ip_rows_22 ip_rows_23 ip_rows_24 ip_rows_25
  ip_rows_26 ip_rows_27 ip_rows_28

lemma ip_rows_ok: "list_all (state_ok ip_blocks ip_expects 327 ip_acts_ok) [1..327]"
  by ((rule list_all_upto_split, rule ip_rows, simp)+, simp)

end
