(* ===== verification/Rx_Shape.thy ===== *)
theory Rx_Shape
  imports Grammar_Rx
begin

text \<open>
  Executable checks on a grammar expression that bound what its words look like: how long
  they are, which characters they use, and which separator comes first in them.  They decide
  buffer sizes and that two grammars share no word.
\<close>

subsection \<open>Lengths\<close>

primrec rx_max :: "rx \<Rightarrow> nat" where
  "rx_max Eps = 0"
| "rx_max (Ch lo hi) = 1"
| "rx_max (Cat r s) = rx_max r + rx_max s"
| "rx_max (Alt r s) = max (rx_max r) (rx_max s)"
| "rx_max (Rep lo hi r) = hi * rx_max r"

primrec rx_min :: "rx \<Rightarrow> nat" where
  "rx_min Eps = 0"
| "rx_min (Ch lo hi) = 1"
| "rx_min (Cat r s) = rx_min r + rx_min s"
| "rx_min (Alt r s) = min (rx_min r) (rx_min s)"
| "rx_min (Rep lo hi r) = lo * rx_min r"

lemma lpow_length_le:
  assumes "\<And>v. v \<in> A \<Longrightarrow> length v \<le> m" and "w \<in> lpow n A"
  shows "length w \<le> n * m"
  using assms(2)
proof (induction n arbitrary: w)
  case (Suc n)
  then obtain u v where "w = u @ v" "u \<in> A" "v \<in> lpow n A" by (auto simp: conc_def)
  then show ?case using assms(1) [of u] Suc.IH [of v] by simp
qed simp

lemma lpow_length_ge:
  assumes "\<And>v. v \<in> A \<Longrightarrow> m \<le> length v" and "w \<in> lpow n A"
  shows "n * m \<le> length w"
  using assms(2)
proof (induction n arbitrary: w)
  case (Suc n)
  then obtain u v where "w = u @ v" "u \<in> A" "v \<in> lpow n A" by (auto simp: conc_def)
  then show ?case using assms(1) [of u] Suc.IH [of v] by simp
qed simp

lemma rx_max_correct: "w \<in> lang r \<Longrightarrow> length w \<le> rx_max r"
proof (induction r arbitrary: w)
  case (Rep lo hi r)
  then obtain n where n: "n \<le> hi" "w \<in> lpow n (lang r)" by auto
  from lpow_length_le [OF Rep.IH n(2)] have "length w \<le> n * rx_max r" by blast
  also have "\<dots> \<le> hi * rx_max r" using n(1) by simp
  finally show ?case by simp
qed (fastforce simp: conc_def)+

lemma rx_min_correct: "w \<in> lang r \<Longrightarrow> rx_min r \<le> length w"
proof (induction r arbitrary: w)
  case (Rep lo hi r)
  then obtain n where n: "lo \<le> n" "w \<in> lpow n (lang r)" by auto
  have "lo * rx_min r \<le> n * rx_min r" using n(1) by simp
  also from lpow_length_ge [OF Rep.IH n(2)] have "\<dots> \<le> length w" by blast
  finally show ?case by simp
qed (fastforce simp: conc_def)+

subsection \<open>Characters\<close>

text \<open>A set of characters is a list of ranges of their \<open>schar\<close> values.\<close>

type_synonym ranges = "(int \<times> int) list"

definition in_ranges :: "ranges \<Rightarrow> char \<Rightarrow> bool" where
  "in_ranges Q c = list_ex (\<lambda>(a, b). a \<le> schar c \<and> schar c \<le> b) Q"

primrec rx_within :: "ranges \<Rightarrow> rx \<Rightarrow> bool" where
  "rx_within Q Eps = True"
| "rx_within Q (Ch lo hi) = list_ex (\<lambda>(a, b). a \<le> lo \<and> hi \<le> b) Q"
| "rx_within Q (Cat r s) = (rx_within Q r \<and> rx_within Q s)"
| "rx_within Q (Alt r s) = (rx_within Q r \<and> rx_within Q s)"
| "rx_within Q (Rep lo hi r) = rx_within Q r"

lemma in_rangesI:
  "list_ex (\<lambda>(a, b). a \<le> lo \<and> hi \<le> b) Q \<Longrightarrow> lo \<le> schar c \<Longrightarrow> schar c \<le> hi \<Longrightarrow> in_ranges Q c"
  by (induction Q) (auto simp: in_ranges_def)

lemma lpow_chars: "(\<And>v. v \<in> A \<Longrightarrow> list_all P v) \<Longrightarrow> w \<in> lpow n A \<Longrightarrow> list_all P w"
  by (induction n arbitrary: w) (fastforce simp: conc_def)+

lemma rx_within_correct: "rx_within Q r \<Longrightarrow> w \<in> lang r \<Longrightarrow> list_all (in_ranges Q) w"
proof (induction r arbitrary: w)
  case (Ch lo hi)
  then show ?case by (auto intro: in_rangesI)
next
  case (Rep lo hi r)
  then show ?case by (auto intro: lpow_chars)
qed (auto simp: conc_def)

subsection \<open>The first separator\<close>

text \<open>
  \<open>marked Q m w\<close>: after characters of \<open>Q\<close> the word \<open>w\<close> has the separator \<open>m\<close>; \<open>leading Q m w\<close>:
  it has it, or nothing but characters of \<open>Q\<close>.
\<close>

fun marked :: "ranges \<Rightarrow> int \<Rightarrow> string \<Rightarrow> bool" where
  "marked Q m [] = False"
| "marked Q m (c # w) = (schar c = m \<or> in_ranges Q c \<and> marked Q m w)"

fun leading :: "ranges \<Rightarrow> int \<Rightarrow> string \<Rightarrow> bool" where
  "leading Q m [] = True"
| "leading Q m (c # w) = (schar c = m \<or> in_ranges Q c \<and> leading Q m w)"

lemma marked_append: "marked Q m v \<Longrightarrow> marked Q m (v @ w)"
  by (induction v) auto

lemma leading_append: "leading Q m v \<Longrightarrow> leading Q m w \<Longrightarrow> leading Q m (v @ w)"
  by (induction v) auto

lemma leading_marked_append: "leading Q m v \<Longrightarrow> marked Q m w \<Longrightarrow> marked Q m (v @ w)"
  by (induction v) auto

lemma marked_leading: "marked Q m w \<Longrightarrow> leading Q m w"
  by (induction w) auto

lemma leading_prefix: "leading Q m (v @ w) \<Longrightarrow> leading Q m v \<or> marked Q m v"
  by (induction v) auto

lemma marked_unique:
  assumes "marked Q m v" and "marked Q n (v @ w)" and "\<And>c. in_ranges Q c \<Longrightarrow> schar c \<noteq> m \<and> schar c \<noteq> n"
  shows "m = n"
  using assms(1,2) by (induction v) (use assms(3) in auto)

primrec rx_leading :: "ranges \<Rightarrow> int \<Rightarrow> rx \<Rightarrow> bool" where
  "rx_leading Q m Eps = True"
| "rx_leading Q m (Ch lo hi) =
     (lo = m \<and> hi = m \<or> list_ex (\<lambda>(a, b). a \<le> lo \<and> hi \<le> b) Q)"
| "rx_leading Q m (Cat r s) = (rx_leading Q m r \<and> rx_leading Q m s)"
| "rx_leading Q m (Alt r s) = (rx_leading Q m r \<and> rx_leading Q m s)"
| "rx_leading Q m (Rep lo hi r) = rx_leading Q m r"

primrec rx_marked :: "ranges \<Rightarrow> int \<Rightarrow> rx \<Rightarrow> bool" where
  "rx_marked Q m Eps = False"
| "rx_marked Q m (Ch lo hi) = (lo = m \<and> hi = m)"
| "rx_marked Q m (Cat r s) = (rx_marked Q m r \<or> rx_leading Q m r \<and> rx_marked Q m s)"
| "rx_marked Q m (Alt r s) = (rx_marked Q m r \<and> rx_marked Q m s)"
| "rx_marked Q m (Rep lo hi r) = (0 < lo \<and> rx_marked Q m r)"

lemma lpow_leading:
  "(\<And>v. v \<in> A \<Longrightarrow> leading Q m v) \<Longrightarrow> w \<in> lpow n A \<Longrightarrow> leading Q m w"
  by (induction n arbitrary: w) (auto simp: conc_def intro: leading_append)

lemma rx_leading_correct: "rx_leading Q m r \<Longrightarrow> w \<in> lang r \<Longrightarrow> leading Q m w"
proof (induction r arbitrary: w)
  case (Ch lo hi)
  then show ?case by (auto intro: in_rangesI)
next
  case (Rep lo hi r)
  then show ?case by (auto intro: lpow_leading)
qed (auto simp: conc_def intro: leading_append)

lemma rx_marked_correct: "rx_marked Q m r \<Longrightarrow> w \<in> lang r \<Longrightarrow> marked Q m w"
proof (induction r arbitrary: w)
  case (Cat r s)
  from Cat.prems(2) obtain u v where "w = u @ v" "u \<in> lang r" "v \<in> lang s" by (auto simp: conc_def)
  with Cat show ?case
    by (auto intro: marked_append leading_marked_append rx_leading_correct)
next
  case (Rep lo hi r)
  then obtain n where n: "lo \<le> n" "w \<in> lpow n (lang r)" by auto
  with Rep.prems(1) have "0 < n" by simp
  with n(2) obtain u v where "w = u @ v" "u \<in> lang r" by (cases n) (auto simp: conc_def)
  with Rep show ?case by (auto intro: marked_append)
qed auto

text \<open>Two words that start alike have the same separator first.\<close>

lemma rx_marked_disjoint:
  assumes "v \<in> lang r" and "v @ w \<in> lang s" and "rx_marked Q m r" and "rx_marked Q n s"
    and "\<And>c. in_ranges Q c \<Longrightarrow> schar c \<noteq> m \<and> schar c \<noteq> n"
  shows "m = n"
  using assms(5) by (intro marked_unique [of Q m v n w] rx_marked_correct [OF assms(3,1)]
      rx_marked_correct [OF assms(4,2)]) auto

end
