(* ===== verification/Ipv4_Spec.thy ===== *)
theory Ipv4_Spec
  imports Ip_Grammar Rx_Shape
begin

text \<open>
  IPv4 addresses in plain terms: four decimal numerals of at most 255 without leading zeros,
  with dots between them, and what follows for the prefixes of an address.
\<close>

lemma in_conc_Ch:
  "w \<in> conc (lang (Ch lo hi)) B \<longleftrightarrow> (\<exists>c v. w = c # v \<and> lo \<le> schar c \<and> schar c \<le> hi \<and> v \<in> B)"
    (is "?l \<longleftrightarrow> ?r")
proof
  assume ?r
  then obtain c v where "w = [c] @ v" "[c] \<in> lang (Ch lo hi)" "v \<in> B" by auto
  then show ?l unfolding conc_def by blast
qed (auto simp: conc_def)

lemma in_conc_sep: "w \<in> conc A (conc {[x]} B) \<longleftrightarrow> (\<exists>a b. w = a @ x # b \<and> a \<in> A \<and> b \<in> B)"
  by (auto simp: conc_def)

lemma in_lang_Ch: "w \<in> lang (Ch lo hi) \<longleftrightarrow> (\<exists>c. w = [c] \<and> lo \<le> schar c \<and> schar c \<le> hi)"
  by auto

lemma lang_Rep_twice: "lang (Rep 2 2 r) = conc (lang r) (lang r)"
  by (simp add: numeral_2_eq_2)

lemma lang_dec_octet:
  "w \<in> lang dec_octet \<longleftrightarrow>
    (\<exists>a. w = [a] \<and> 48 \<le> schar a \<and> schar a \<le> 57) \<or>
    (\<exists>a b. w = [a, b] \<and> 49 \<le> schar a \<and> schar a \<le> 57 \<and> 48 \<le> schar b \<and> schar b \<le> 57) \<or>
    (\<exists>a b c. w = [a, b, c] \<and> 48 \<le> schar b \<and> schar b \<le> 57 \<and> 48 \<le> schar c \<and> schar c \<le> 57 \<and>
      (schar a = 49 \<or> schar a = 50 \<and> (schar b \<le> 52 \<or> schar b = 53 \<and> schar c \<le> 53)))"
  unfolding dec_octet_def DIGIT_def Lit_codes lang.simps(3,4) lang_Rep_twice Un_iff in_conc_Ch in_lang_Ch
  by force

subsection \<open>Decimal numerals\<close>

definition digit_val :: "char \<Rightarrow> nat" where
  "digit_val c = nat (schar c - 48)"

definition dec_val :: "string \<Rightarrow> nat" where
  "dec_val w = foldl (\<lambda>n c. 10 * n + digit_val c) 0 w"

definition decimal :: "string \<Rightarrow> bool" where
  "decimal w \<longleftrightarrow>
     w \<noteq> [] \<and> list_all (\<lambda>c. 48 \<le> schar c \<and> schar c \<le> 57) w \<and> (hd w = CHR ''0'' \<longrightarrow> w = ''0'')"

lemma schar_zero: "c = CHR ''0'' \<longleftrightarrow> schar c = 48"
  by (simp add: schar_inject [symmetric] schar_def del: schar_inject)

lemma dec_val_ge: "n * 10 ^ length w \<le> foldl (\<lambda>n c. 10 * n + digit_val c) n w"
proof (induction w arbitrary: n)
  case (Cons c w)
  have "n * 10 ^ length (c # w) \<le> (10 * n + digit_val c) * 10 ^ length w" by simp
  also have "\<dots> \<le> foldl (\<lambda>n c. 10 * n + digit_val c) (10 * n + digit_val c) w" by (rule Cons.IH)
  finally show ?case by simp
qed simp

lemma decimal_length:
  assumes "decimal w" and "dec_val w < 10 ^ n" and "0 < n"
  shows "length w \<le> n"
proof (cases "w = ''0''")
  case False
  with assms(1) obtain c v where w: "w = c # v" and c: "49 \<le> schar c"
    by (cases w) (auto simp: decimal_def schar_zero)
  have "10 ^ length v \<le> digit_val c * 10 ^ length v" using c by (simp add: digit_val_def)
  also have "\<dots> \<le> dec_val w" using dec_val_ge [of "digit_val c" v] by (simp add: w dec_val_def)
  also have "\<dots> < 10 ^ n" by (rule assms(2))
  finally have "length v < n" by (simp add: power_strict_increasing_iff)
  then show ?thesis by (simp add: w)
qed (use assms(3) in simp)

lemma list3_cases:
  "length w \<le> 3 \<Longrightarrow> w = [] \<or> (\<exists>a. w = [a]) \<or> (\<exists>a b. w = [a, b]) \<or> (\<exists>a b c. w = [a, b, c])"
  by (cases w; cases "tl w"; cases "tl (tl w)") auto

lemma dec_octet_value: "w \<in> lang dec_octet \<longleftrightarrow> decimal w \<and> dec_val w \<le> 255"
proof (cases "length w \<le> 3")
  case True
  from list3_cases [OF this] consider "w = []" | a where "w = [a]" | a b where "w = [a, b]"
    | a b c where "w = [a, b, c]" by blast
  then show ?thesis
  proof cases
    case (4 a b c)
    then show ?thesis
      by (cases "48 \<le> schar a \<and> schar a \<le> 57"; cases "48 \<le> schar b \<and> schar b \<le> 57";
          cases "48 \<le> schar c \<and> schar c \<le> 57")
        (simp_all add: lang_dec_octet decimal_def schar_zero dec_val_def digit_val_def, linarith+)
  qed (auto simp: lang_dec_octet decimal_def schar_zero dec_val_def digit_val_def)
next
  case False
  then show ?thesis using decimal_length [of w 3] by (auto simp: lang_dec_octet)
qed

subsection \<open>Dotted quads\<close>

lemma lang_IPv4address:
  "w \<in> lang IPv4address \<longleftrightarrow>
    (\<exists>a b c d. w = a @ ''.'' @ b @ ''.'' @ c @ ''.'' @ d \<and>
      a \<in> lang dec_octet \<and> b \<in> lang dec_octet \<and> c \<in> lang dec_octet \<and> d \<in> lang dec_octet)"
proof -
  have dot: "lang (Lit c) = {[c]}" for c
    by (auto simp: antisym_conv schar_inject [symmetric] simp del: schar_inject)
  show ?thesis
    by (auto simp only: IPv4address_def lang.simps(3) dot in_conc_sep append.simps) blast+
qed

lemma dec_octet_no_dot: "w \<in> lang dec_octet \<Longrightarrow> CHR ''.'' \<notin> set w"
  by (auto simp: lang_dec_octet schar_inject [symmetric] Lit_codes simp del: schar_inject)

lemma dec_octet_prefix: "v @ w \<in> lang dec_octet \<Longrightarrow> v \<noteq> [] \<Longrightarrow> v \<in> lang dec_octet"
  unfolding lang_dec_octet by (cases v; cases "tl v"; cases "tl (tl v)") (auto simp: append_eq_Cons_conv)

lemma append_sep_eq:
  assumes "a @ x # r = a' @ x # r'" and "x \<notin> set a" and "x \<notin> set a'"
  shows "a = a' \<and> r = r'"
  using assms by (induction a arbitrary: a') (auto simp: Cons_eq_append_conv)

text \<open>Between an address and a longer one that starts with it there are only addresses.\<close>

lemma IPv4address_between:
  assumes "u \<in> lang IPv4address" and "u @ w @ v \<in> lang IPv4address"
  shows "u @ w \<in> lang IPv4address"
proof -
  from assms(1) obtain a b c d where u: "u = a @ ''.'' @ b @ ''.'' @ c @ ''.'' @ d"
    and o1: "a \<in> lang dec_octet" "b \<in> lang dec_octet" "c \<in> lang dec_octet" "d \<in> lang dec_octet"
    by (auto simp: lang_IPv4address)
  from assms(2) obtain a' b' c' d' where l: "u @ w @ v = a' @ ''.'' @ b' @ ''.'' @ c' @ ''.'' @ d'"
    and o2: "a' \<in> lang dec_octet" "b' \<in> lang dec_octet" "c' \<in> lang dec_octet" "d' \<in> lang dec_octet"
    by (auto simp: lang_IPv4address)
  note nd = o1 [THEN dec_octet_no_dot] o2 [THEN dec_octet_no_dot]
  from l u have "a @ CHR ''.'' # (b @ ''.'' @ c @ ''.'' @ d @ w @ v) =
    a' @ CHR ''.'' # (b' @ ''.'' @ c' @ ''.'' @ d')" by simp
  from append_sep_eq [OF this] nd
  have "b @ CHR ''.'' # (c @ ''.'' @ d @ w @ v) = b' @ CHR ''.'' # (c' @ ''.'' @ d')" by simp
  from append_sep_eq [OF this] nd
  have "c @ CHR ''.'' # (d @ w @ v) = c' @ CHR ''.'' # d'" by simp
  from append_sep_eq [OF this] nd have "d @ w @ v = d'" by simp
  with o2(4) have "(d @ w) @ v \<in> lang dec_octet" by simp
  then have "d @ w \<in> lang dec_octet"
    by (rule dec_octet_prefix) (use o1(4) in \<open>auto simp: lang_dec_octet\<close>)
  with o1 show ?thesis unfolding lang_IPv4address u by fastforce
qed

end
