(* ===== verification/Ip_Parser.thy ===== *)
theory Ip_Parser
  imports Ip_Certificate Ipv4_Spec
begin

text \<open>
  \<open>utils_ip_parser_execute\<close> of ext/utils/ip_utils.c: the type of an IP address in a buffer.
  The scanner follows the three alternatives of its grammar (the certificate interprets
  \<open>certified_automaton\<close>), an address is classified when a prefix of it completes an
  alternative, and the function only asks that the whole buffer was read.
\<close>

definition utils_ip_parser_execute :: "string \<Rightarrow> enum_ip_type" where
  "utils_ip_parser_execute str =
     (case rgl_exec ip_blocks (\<lambda>a p ip_type. a) 1 0 str ip_type_error of
        (cs, p, ip_type) \<Rightarrow> if length str \<noteq> p then ip_type_error else ip_type)"

definition ip_grammars :: "rx list" where
  "ip_grammars = [IPv4address, IPv6address, IPv6reference]"

interpretation ip: certified_automaton ip_blocks 1 ip_expects 327 ip_acts_ok ip_grammars
proof unfold_locales
  show "list_all rx_live ip_grammars"
    by (simp add: ip_grammars_def ip_grammar_defs Lit_codes)
  show "map (\<lambda>g. [[g]]) ip_grammars \<in> set (snd (ip_expects 1))"
    by (simp add: ip_grammars_def ip_expects_def ip_expects_1_def)
  show "list_all (state_ok ip_blocks ip_expects 327 ip_acts_ok) [1..327]"
    by (rule ip_rows_ok)
qed simp_all

subsection \<open>What tells the three forms apart\<close>

definition hex_ranges :: ranges where
  "hex_ranges = [(48, 57), (65, 70), (97, 102)]"

lemma hex_ranges_no_sep:
  "in_ranges hex_ranges c \<Longrightarrow> schar c \<noteq> 46 \<and> schar c \<noteq> 58 \<and> schar c \<noteq> 91 \<and> schar c \<noteq> 93"
  by (auto simp: hex_ranges_def in_ranges_def)

lemma ip_marks:
  "rx_marked hex_ranges 46 IPv4address" "rx_marked hex_ranges 58 IPv6address"
  "rx_marked hex_ranges 91 IPv6reference"
  by (simp_all add: ip_grammar_defs Lit_codes hex_ranges_def)

lemma ip_forms_disjoint:
  assumes "v \<in> lang (ip_grammars ! i)" and "v @ w \<in> lang (ip_grammars ! j)" and "i < 3" and "j < 3"
  shows "i = j"
proof -
  let ?m = "\<lambda>k. [46, 58, 91 :: int] ! k"
  have marks: "rx_marked hex_ranges (?m k) (ip_grammars ! k)" if "k < 3" for k
    using ip_marks that by (auto simp: ip_grammars_def less_Suc_eq numeral_3_eq_3)
  have sep: "schar c \<noteq> ?m k" if "in_ranges hex_ranges c" "k < 3" for c k
    using hex_ranges_no_sep [OF that(1)] that(2) by (auto simp: less_Suc_eq numeral_3_eq_3)
  from assms have "?m i = ?m j"
    by (intro rx_marked_disjoint [OF assms(1,2) marks marks]) (auto dest: sep)
  with assms(3,4) show ?thesis by (auto simp: less_Suc_eq numeral_3_eq_3)
qed

subsection \<open>The value of the scanner\<close>

definition ip_tags :: "enum_ip_type list" where
  "ip_tags = [ip_type_ipv4, ip_type_ipv6, ip_type_ipv6_reference]"

lemma length_ip_grammars [simp]: "length ip_grammars = 3"
  by (simp add: ip_grammars_def)

text \<open>
  The data after a prefix \<open>w\<close>: the tag of a form that some prefix of \<open>w\<close> has, or
  \<open>ip_type_error\<close> when no prefix has any.
\<close>

definition tagged :: "string \<Rightarrow> enum_ip_type \<Rightarrow> bool" where
  "tagged w t \<longleftrightarrow>
     (t = ip_type_error \<and> (\<forall>u v i. w = u @ v \<longrightarrow> i < 3 \<longrightarrow> u \<notin> lang (ip_grammars ! i))) \<or>
     (\<exists>u v i. w = u @ v \<and> i < 3 \<and> u \<in> lang (ip_grammars ! i) \<and> t = ip_tags ! i)"

lemma ip_actions:
  assumes "ip.follows (w @ [c]) Y" and "ip_acts_ok as X Y"
  shows "as = map snd (filter (\<lambda>(i, t). w @ [c] \<in> lang (ip_grammars ! i)) (enumerate 0 ip_tags))"
proof -
  have l: "length Y = 3" using assms(1) by (simp add: ip.follows_def)
  then obtain a b d where Y: "Y = [a, b, d]"
    by (auto simp: length_Suc_conv numeral_3_eq_3)
  have "stacks_null (Y ! i) \<longleftrightarrow> w @ [c] \<in> lang (ip_grammars ! i)" if "i < 3" for i
    using ip.follows_accepts [OF assms(1)] that by simp
  from this [of 0] this [of 1] this [of 2] assms(2) show ?thesis
    by (simp add: ip_acts_ok_def Y ip_tags_def numeral_2_eq_2)
qed

lemma tagged_step:
  assumes "tagged w t"
    and "as = map snd (filter (\<lambda>(i, t). w @ [c] \<in> lang (ip_grammars ! i)) (enumerate 0 ip_tags))"
  shows "tagged (w @ [c]) (fold (\<lambda>a _. a) as t)"
proof (cases "\<exists>i < 3. w @ [c] \<in> lang (ip_grammars ! i)")
  case True
  then obtain i where i: "i < 3" "w @ [c] \<in> lang (ip_grammars ! i)" by blast
  have only: "w @ [c] \<in> lang (ip_grammars ! j) \<longleftrightarrow> j = i" if "j < 3" for j
    using ip_forms_disjoint [of "w @ [c]" j "[]" i] i that by auto
  have "as = [ip_tags ! i]"
    using assms(2) only [of 0] only [of 1] only [of 2] i(1)
    by (auto simp: ip_tags_def less_Suc_eq numeral_3_eq_3 numeral_2_eq_2)
  then show ?thesis using i by (auto simp: tagged_def intro: exI [of _ "w @ [c]"])
next
  case False
  then have as: "as = []"
    using assms(2) by (auto simp: ip_tags_def)
  have pre: "u = w @ [c] \<or> (\<exists>v'. w = u @ v')" if "w @ [c] = u @ v" for u v
    using that by (cases v rule: rev_cases) auto
  show ?thesis
  proof (cases "t = ip_type_error \<and> (\<forall>u v i. w = u @ v \<longrightarrow> i < 3 \<longrightarrow> u \<notin> lang (ip_grammars ! i))")
    case True
    then have "u \<notin> lang (ip_grammars ! i)" if "w @ [c] = u @ v" "i < 3" for u v i
      using pre [OF that(1)] False that(2) by auto
    with True as show ?thesis by (auto simp: tagged_def)
  next
    case False
    with assms(1) obtain u v i where "w = u @ v" "i < 3" "u \<in> lang (ip_grammars ! i)" "t = ip_tags ! i"
      by (auto simp: tagged_def)
    with as have "w @ [c] = u @ (v @ [c]) \<and> i < 3 \<and> u \<in> lang (ip_grammars ! i) \<and>
      fold (\<lambda>a _. a) as t = ip_tags ! i" by simp
    then show ?thesis unfolding tagged_def by blast
  qed
qed

lemma ip_exec_tagged:
  assumes "rgl_run ip_blocks 1 w = Some s"
  shows "tagged w (snd (snd (rgl_exec ip_blocks (\<lambda>a p ip_type. a) 1 0 w ip_type_error)))"
  using assms
proof (induction w arbitrary: s rule: rev_induct)
  case Nil
  have "[] \<notin> lang (ip_grammars ! i)" if "i < 3" for i
    using ip.follows_accepts [OF ip.at_start(2), of i] that null_ip_rules
    by (auto simp: ip_grammars_def less_Suc_eq numeral_3_eq_3 stacks_null_def)
  then show ?case by (simp add: tagged_def)
next
  case (snoc c w)
  from snoc.prems obtain u as where u: "rgl_run ip_blocks 1 w = Some u"
    "rgl_step ip_blocks u (schar c) = Some (as, s)"
    by (auto simp: rgl_run_append split: option.splits)
  from ip.run_step_actions [OF u] obtain X Y where Y: "ip.follows (w @ [c]) Y" "ip_acts_ok as X Y"
    by blast
  from tagged_step [OF snoc.IH [OF u(1)] ip_actions [OF Y]] show ?case
    by (simp add: rgl_exec_append [OF u(1)] u(2))
qed

lemma ip_execute_cases:
  shows "(\<forall>i < 3. \<forall>v. str @ v \<notin> lang (ip_grammars ! i)) \<and> utils_ip_parser_execute str = ip_type_error \<or>
    (\<exists>i < 3. \<exists>v. str @ v \<in> lang (ip_grammars ! i)) \<and> tagged str (utils_ip_parser_execute str)"
proof -
  obtain s p t where e: "rgl_exec ip_blocks (\<lambda>a p ip_type. a) 1 0 str ip_type_error = (s, p, t)"
    by (cases "rgl_exec ip_blocks (\<lambda>a p ip_type. a) 1 0 str ip_type_error") auto
  have p: "p = length str \<longleftrightarrow> rgl_run ip_blocks 1 str \<noteq> None"
    using rgl_exec_end_iff [OF e] by simp
  have v: "rgl_run ip_blocks 1 str \<noteq> None \<longleftrightarrow> (\<exists>i < 3. \<exists>v. str @ v \<in> lang (ip_grammars ! i))"
    using ip.run_viable [of str] by simp
  show ?thesis
    using p v ip_exec_tagged [of str] by (auto simp: utils_ip_parser_execute_def e)
qed

subsection \<open>Addresses by form\<close>

lemma tagged_ip_tag:
  assumes "str @ v \<in> lang (ip_grammars ! i)" and "i < 3" and "tagged str t" and "t \<noteq> ip_type_error"
  shows "t = ip_tags ! i \<and> (\<exists>u w. str = u @ w \<and> u \<in> lang (ip_grammars ! i))"
proof -
  from assms(3,4) obtain u w j where u: "str = u @ w" "j < 3" "u \<in> lang (ip_grammars ! j)"
    "t = ip_tags ! j" by (auto simp: tagged_def)
  with assms(1) have "u @ (w @ v) \<in> lang (ip_grammars ! i)" by simp
  from ip_forms_disjoint [OF u(3) this u(2) assms(2)] u show ?thesis by auto
qed

lemma ip_execute_iff:
  assumes "i < 3"
  shows "utils_ip_parser_execute str = ip_tags ! i \<longleftrightarrow>
    (\<exists>u w v. str = u @ w \<and> u \<in> lang (ip_grammars ! i) \<and> str @ v \<in> lang (ip_grammars ! i))"
    (is "?l \<longleftrightarrow> ?r")
proof -
  have ne: "ip_tags ! i \<noteq> ip_type_error" and inj: "ip_tags ! j = ip_tags ! i \<Longrightarrow> j < 3 \<Longrightarrow> j = i" for j
    using assms by (auto simp: ip_tags_def less_Suc_eq numeral_3_eq_3)
  show ?thesis
  proof
    assume l: ?l
    with ip_execute_cases [of str] ne obtain j v where j: "j < 3" "str @ v \<in> lang (ip_grammars ! j)"
      and t: "tagged str (utils_ip_parser_execute str)" by auto
    from tagged_ip_tag [OF j(2,1) t] l ne have "ip_tags ! j = ip_tags ! i"
      "\<exists>u w. str = u @ w \<and> u \<in> lang (ip_grammars ! j)" by auto
    with inj j show ?r by blast
  next
    assume ?r
    then obtain u w v where r: "str = u @ w" "u \<in> lang (ip_grammars ! i)" "str @ v \<in> lang (ip_grammars ! i)"
      by blast
    with ip_execute_cases [of str] assms have t: "tagged str (utils_ip_parser_execute str)" by blast
    then have "utils_ip_parser_execute str \<noteq> ip_type_error"
      using r(1,2) assms by (auto simp: tagged_def ip_tags_def less_Suc_eq numeral_3_eq_3)
    with tagged_ip_tag [OF r(3) assms t] show ?l by simp
  qed
qed

lemma ip_execute_exact:
  assumes "i < 3" and "g = ip_grammars ! i"
    and "\<And>u w v. u \<in> lang g \<Longrightarrow> u @ w @ v \<in> lang g \<Longrightarrow> u @ w \<in> lang g"
  shows "utils_ip_parser_execute str = ip_tags ! i \<longleftrightarrow> str \<in> lang g"
proof
  assume "utils_ip_parser_execute str = ip_tags ! i"
  then obtain u w v where "str = u @ w" "u \<in> lang g" "str @ v \<in> lang g"
    using ip_execute_iff [OF assms(1)] assms(2) by auto
  then show "str \<in> lang g" using assms(3) [of u w v] by simp
next
  assume "str \<in> lang g"
  then have "str = str @ []" "str \<in> lang (ip_grammars ! i)" "str @ [] \<in> lang (ip_grammars ! i)"
    using assms(2) by simp_all
  then show "utils_ip_parser_execute str = ip_tags ! i"
    unfolding ip_execute_iff [OF assms(1)] by blast
qed

text \<open>No character follows an IPv6 reference: its closing bracket is the first one.\<close>

lemma IPv6reference_shape:
  "w \<in> lang IPv6reference \<longleftrightarrow> (\<exists>a. w = ''['' @ a @ '']'' \<and> a \<in> lang IPv6address)"
proof -
  have lit: "lang (Lit c) = {[c]}" for c
    by (auto simp: antisym_conv schar_inject [symmetric] simp del: schar_inject)
  show ?thesis
    unfolding IPv6reference_def lang.simps(3) lit by (auto simp: conc_def)
qed

lemma IPv6address_chars: "w \<in> lang IPv6address \<Longrightarrow> CHR '']'' \<notin> set w"
proof
  assume w: "w \<in> lang IPv6address" and m: "CHR '']'' \<in> set w"
  have "rx_within ((46, 46) # (58, 58) # hex_ranges) IPv6address"
    by (simp add: ip_grammar_defs Lit_codes hex_ranges_def)
  from rx_within_correct [OF this w] m have "in_ranges ((46, 46) # (58, 58) # hex_ranges) CHR '']''"
    by (simp add: list_all_iff)
  then show False by (simp add: in_ranges_def hex_ranges_def Lit_codes)
qed

lemma IPv6reference_end:
  assumes "u \<in> lang IPv6reference" and "u @ w \<in> lang IPv6reference"
  shows "w = []"
proof -
  from assms(1) obtain a where u: "u = ''['' @ a @ '']''" "a \<in> lang IPv6address"
    by (auto simp: IPv6reference_shape)
  from assms(2) obtain b where b: "u @ w = ''['' @ b @ '']''" "b \<in> lang IPv6address"
    by (auto simp: IPv6reference_shape)
  from u(1) b(1) have "a @ CHR '']'' # w = b @ CHR '']'' # []" by simp
  from append_sep_eq [OF this] IPv6address_chars u(2) b(2) show ?thesis by blast
qed

text \<open>Computing a match, with the same rules as the rows of the certificate.\<close>

lemma schar_codes:
  "schar CHR ''1'' = 49" "schar CHR ''2'' = 50" "schar CHR ''3'' = 51" "schar CHR ''4'' = 52"
  "schar CHR ''.'' = 46" "schar CHR '':'' = 58"
  by (simp_all add: schar_def)

lemmas ip_match = rx_matches_correct rx_matches_def schar_codes cert_eval fold_simps

lemma ip_execute_ipv4: "utils_ip_parser_execute str = ip_type_ipv4 \<longleftrightarrow> str \<in> lang IPv4address"
  using ip_execute_exact [OF _ _ IPv4address_between, where i = 0 and str = str]
  by (simp add: ip_tags_def ip_grammars_def)

lemma ip_execute_ipv6:
  "utils_ip_parser_execute str = ip_type_ipv6 \<longleftrightarrow>
    (\<exists>u w v. str = u @ w \<and> u \<in> lang IPv6address \<and> str @ v \<in> lang IPv6address)"
  using ip_execute_iff [of 1 str] by (simp add: ip_tags_def ip_grammars_def)

lemma ip_execute_reference:
  "utils_ip_parser_execute str = ip_type_ipv6_reference \<longleftrightarrow>
    (\<exists>a. str = ''['' @ a @ '']'' \<and> a \<in> lang IPv6address)"
proof -
  have between: "u @ w \<in> lang IPv6reference"
    if "u \<in> lang IPv6reference" "u @ w @ v \<in> lang IPv6reference" for u w v
    using IPv6reference_end [OF that] that(1) by simp
  have "utils_ip_parser_execute str = ip_type_ipv6_reference \<longleftrightarrow> str \<in> lang IPv6reference"
    using ip_execute_exact [OF _ _ between, where i = 2 and str = str]
    by (simp add: ip_tags_def ip_grammars_def)
  then show ?thesis by (simp add: IPv6reference_shape)
qed

text \<open>
  C1.  A buffer is classified \<open>ip_type_ipv4\<close> exactly when it is four decimal numerals of at
  most 255, without leading zeros, with dots between them.
\<close>

theorem utils_ip_parser_ipv4:
  "utils_ip_parser_execute str = ip_type_ipv4 \<longleftrightarrow>
    (\<exists>a b c d. str = a @ ''.'' @ b @ ''.'' @ c @ ''.'' @ d \<and>
      list_all (\<lambda>o8. decimal o8 \<and> dec_val o8 \<le> 255) [a, b, c, d])"
  by (simp add: ip_execute_ipv4 lang_IPv4address dec_octet_value)

text \<open>
  C3.  A buffer is classified \<open>ip_type_ipv6\<close> exactly when it starts with an IPv6 address of
  the grammar and can still be continued to one; in particular every IPv6 address is.
\<close>

theorem utils_ip_parser_ipv6:
  "utils_ip_parser_execute str = ip_type_ipv6 \<longleftrightarrow>
    (\<exists>u w v. str = u @ w \<and> u \<in> lang IPv6address \<and> str @ v \<in> lang IPv6address)"
  by (rule ip_execute_ipv6)

text \<open>
  C2.  A buffer is classified \<open>ip_type_ipv6_reference\<close> exactly when it is an IPv6 address
  between brackets.
\<close>

theorem utils_ip_parser_ipv6_reference:
  "utils_ip_parser_execute str = ip_type_ipv6_reference \<longleftrightarrow>
    (\<exists>a. str = ''['' @ a @ '']'' \<and> a \<in> lang IPv6address)"
  by (rule ip_execute_reference)

text \<open>
  C37.  The scanner keeps the type of an address it has already read, so a buffer that stops in
  the middle of an unfinished IPv4 tail or group is classified as an IPv6 address although
  the grammar has no such address.
\<close>

theorem utils_ip_parser_unfinished_ipv6:
  "utils_ip_parser_execute ''::1.'' = ip_type_ipv6 \<and> ''::1.'' \<notin> lang IPv6address \<and>
   utils_ip_parser_execute ''1::2:'' = ip_type_ipv6 \<and> ''1::2:'' \<notin> lang IPv6address"
proof (intro conjI)
  have "''::1.'' = ''::1'' @ ''.''" "''::1'' \<in> lang IPv6address" "''::1.'' @ ''2.3.4'' \<in> lang IPv6address"
    by (simp, simp_all only: ip_match cong: cert_cong)
  then show "utils_ip_parser_execute ''::1.'' = ip_type_ipv6"
    unfolding ip_execute_ipv6 by blast
  have "''1::2:'' = ''1::2'' @ '':''" "''1::2'' \<in> lang IPv6address" "''1::2:'' @ ''3'' \<in> lang IPv6address"
    by (simp, simp_all only: ip_match cong: cert_cong)
  then show "utils_ip_parser_execute ''1::2:'' = ip_type_ipv6"
    unfolding ip_execute_ipv6 by blast
qed (simp_all only: ip_match cong: cert_cong)

text \<open>The sizes of what is accepted.\<close>

lemma ip_lengths:
  "w \<in> lang IPv4address \<Longrightarrow> length w \<le> 15"
  "w \<in> lang IPv6address \<Longrightarrow> 2 \<le> length w \<and> length w \<le> 45"
  using rx_max_correct [of w IPv4address] rx_max_correct [of w IPv6address]
    rx_min_correct [of w IPv6address]
  by (simp_all add: ip_grammar_defs)

lemma ip_form_length:
  assumes "utils_ip_parser_execute str = ip_tags ! i" and "i < 3"
    and "\<And>w. w \<in> lang (ip_grammars ! i) \<Longrightarrow> m \<le> length w \<and> length w \<le> n"
  shows "m \<le> length str \<and> length str \<le> n"
proof -
  from assms(1,2) obtain u w v where "str = u @ w" "u \<in> lang (ip_grammars ! i)"
    "str @ v \<in> lang (ip_grammars ! i)" unfolding ip_execute_iff [OF assms(2)] by blast
  with assms(3) [of u] assms(3) [of "str @ v"] show ?thesis by simp
qed

lemma utils_ip_parser_ipv4_length:
  "utils_ip_parser_execute str = ip_type_ipv4 \<Longrightarrow> length str \<le> 15"
  using ip_form_length [of str 0 0 15] ip_lengths by (simp add: ip_tags_def ip_grammars_def)

lemma utils_ip_parser_ipv6_length:
  "utils_ip_parser_execute str = ip_type_ipv6 \<Longrightarrow> 2 \<le> length str \<and> length str \<le> 45"
  using ip_form_length [of str 1 2 45] ip_lengths by (simp add: ip_tags_def ip_grammars_def)

lemma IPv6reference_length: "w \<in> lang IPv6reference \<Longrightarrow> 4 \<le> length w \<and> length w \<le> 47"
  using ip_lengths(2) by (fastforce simp: IPv6reference_shape)

lemma utils_ip_parser_ipv6_reference_length:
  "utils_ip_parser_execute str = ip_type_ipv6_reference \<Longrightarrow> 4 \<le> length str \<and> length str \<le> 47"
  using ip_form_length [of str 2 4 47] IPv6reference_length by (simp add: ip_tags_def ip_grammars_def)

end
