(* ===== verification/Ruby_Value.thy ===== *)
theory Ruby_Value
  imports Prelude
begin

text \<open>
  The Ruby values the extensions take and return, and the ways a C function of an extension can
  end without one: it raises a Ruby exception, or it leaves its buffers, which C leaves
  undefined.
\<close>

datatype ruby_value =
    Qnil | Qfalse | Qtrue
  | Fix int
  | Str string
  | Sym string
  | Ary "ruby_value list"

datatype c_error = TypeError | ArgumentError | RangeError | OutOfBounds

type_synonym outcome = "c_error + ruby_value"

text \<open>
  \<open>StringValueCStr\<close>: the characters of a String as a C string; a String with a zero character
  inside, or another value, raises.
\<close>

fun StringValueCStr :: "ruby_value \<Rightarrow> c_error + string" where
  "StringValueCStr (Str s) = (if CHR 0x00 \<in> set s then Inl ArgumentError else Inr s)"
| "StringValueCStr v = Inl TypeError"

text \<open>The C string in a buffer: what is before the first zero.\<close>

definition c_string :: "string \<Rightarrow> string" where
  "c_string s = takeWhile (\<lambda>c. c \<noteq> CHR 0x00) s"

lemma c_string_id: "CHR 0x00 \<notin> set s \<Longrightarrow> c_string s = s"
  by (auto simp: c_string_def takeWhile_eq_all_conv)

end
