(* ===== verification/Ip_Utils.thy ===== *)
theory Ip_Utils
  imports Ip_Parser Ruby_Value
begin

text \<open>
  ext/utils/ip_utils.h, ext/utils/utils_ruby.h and the IP functions of ext/utils/utils_ruby.c.
  The system's \<open>inet_pton\<close> and \<open>inet_ntop\<close> are parameters \<open>pton\<close> and \<open>ntop\<close>: the first
  returns its status and the address it wrote (network byte order), the second the text it
  wrote, or \<open>None\<close> for a null pointer.
\<close>

datatype address_family = AF_INET | AF_INET6

type_synonym pton = "address_family \<Rightarrow> string \<Rightarrow> int \<times> buffer"

type_synonym ntop = "address_family \<Rightarrow> buffer \<Rightarrow> string option"

definition INET6_ADDRSTRLEN :: nat where
  "INET6_ADDRSTRLEN = 46"

text \<open>
  What POSIX documents of the two: the status is 1 or 0 for the two families, an address has 4
  or 16 bytes, the text of an IPv6 address fits \<open>INET6_ADDRSTRLEN\<close> with its terminating zero,
  is made of hexadecimal digits, colons and dots, and is read back as the same address.
\<close>

definition addr_len :: "address_family \<Rightarrow> nat" where
  "addr_len af = (case af of AF_INET \<Rightarrow> 4 | AF_INET6 \<Rightarrow> 16)"

definition addr_text :: "string \<Rightarrow> bool" where
  "addr_text t \<longleftrightarrow> t \<noteq> [] \<and> list_all (in_ranges [(46, 46), (48, 58), (65, 70), (97, 102)]) t"

definition inet_laws :: "pton \<Rightarrow> ntop \<Rightarrow> bool" where
  "inet_laws pton ntop \<longleftrightarrow>
     (\<forall>af s. (fst (pton af s) = 0 \<or> fst (pton af s) = 1) \<and>
        (fst (pton af s) = 1 \<longrightarrow> length (snd (pton af s)) = addr_len af)) \<and>
     (\<forall>a. length a = 16 \<longrightarrow>
        (\<exists>t. ntop AF_INET6 a = Some t \<and> length t < INET6_ADDRSTRLEN \<and> addr_text t \<and>
           pton AF_INET6 t = (1, a)))"

subsection \<open>\<open>utils_compare_pure_ips\<close>\<close>

text \<open>The copies \<open>_ip1\<close> and \<open>_ip2\<close> have room for \<open>INET6_ADDRSTRLEN + 1\<close> characters.\<close>

definition utils_compare_pure_ips ::
  "pton \<Rightarrow> string \<Rightarrow> enum_ip_type \<Rightarrow> string \<Rightarrow> enum_ip_type \<Rightarrow> c_error + bool" where
  "utils_compare_pure_ips pton ip1 ip1_type ip2 ip2_type =
     (if ip1_type \<noteq> ip2_type then Inr False
      else if INET6_ADDRSTRLEN + 1 \<le> length ip1 then Inl OutOfBounds
      else if INET6_ADDRSTRLEN + 1 \<le> length ip2 then Inl OutOfBounds
      else
        (case ip1_type of
           ip_type_ipv4 \<Rightarrow>
             (if fst (pton AF_INET (c_string ip1)) = 0 then Inr False
              else if fst (pton AF_INET (c_string ip2)) = 0 then Inr False
              else Inr (snd (pton AF_INET (c_string ip1)) = snd (pton AF_INET (c_string ip2))))
         | ip_type_ipv6 \<Rightarrow>
             (if fst (pton AF_INET6 (c_string ip1)) \<noteq> 1 then Inr False
              else if fst (pton AF_INET6 (c_string ip2)) \<noteq> 1 then Inr False
              else Inr (snd (pton AF_INET6 (c_string ip1)) = snd (pton AF_INET6 (c_string ip2))))
         | _ \<Rightarrow> Inr False))"

subsection \<open>\<open>utils_normalize_ipv6\<close>\<close>

text \<open>
  \<open>str2\<close> has room for \<open>INET6_ADDRSTRLEN + 3\<close> characters; \<open>strlen(str) - 2\<close> is unsigned, so it
  is huge for the one-character string.
\<close>

definition utils_normalize_ipv6 :: "pton \<Rightarrow> ntop \<Rightarrow> ruby_value \<Rightarrow> bool \<Rightarrow> outcome" where
  "utils_normalize_ipv6 pton ntop string force_pure_ipv6 =
     (case StringValueCStr string of
        Inl e \<Rightarrow> Inl e
      | Inr str \<Rightarrow>
          (let is_ipv6_reference = (str \<noteq> [] \<and> hd str = CHR ''['')
           in if is_ipv6_reference \<and> (length str < 2 \<or> INET6_ADDRSTRLEN + 3 \<le> length str - 2)
              then Inl OutOfBounds
              else
                (let p = pton AF_INET6
                       (if is_ipv6_reference then take (length str - 2) (tl str) else str)
                 in if fst p = 0 then Inr Qfalse
                    else if fst p = -1 then Inr Qnil
                    else
                      (case ntop AF_INET6 (snd p) of
                         Some normalized_ipv6 \<Rightarrow>
                           if is_ipv6_reference \<and> \<not> force_pure_ipv6
                           then if INET6_ADDRSTRLEN + 3 < length normalized_ipv6 + 3 then Inl OutOfBounds
                                else Inr (Str (''['' @ normalized_ipv6 @ '']''))
                           else Inr (Str normalized_ipv6)
                       | None \<Rightarrow> Inr Qnil))))"

subsection \<open>The Ruby functions\<close>

definition ruby_bool :: "bool \<Rightarrow> ruby_value" where
  "ruby_bool b = (if b then Qtrue else Qfalse)"

fun Utils_is_ip :: "ruby_value \<Rightarrow> outcome" where
  "Utils_is_ip (Str str) =
     (if utils_ip_parser_execute str \<noteq> ip_type_error then Inr Qtrue else Inr Qfalse)"
| "Utils_is_ip v = Inl TypeError"

fun Utils_is_pure_ip :: "ruby_value \<Rightarrow> outcome" where
  "Utils_is_pure_ip (Str str) =
     (case utils_ip_parser_execute str of
        ip_type_ipv4 \<Rightarrow> Inr Qtrue | ip_type_ipv6 \<Rightarrow> Inr Qtrue | _ \<Rightarrow> Inr Qfalse)"
| "Utils_is_pure_ip v = Inl TypeError"

fun Utils_ip_type :: "ruby_value \<Rightarrow> outcome" where
  "Utils_ip_type (Str str) =
     (case utils_ip_parser_execute str of
        ip_type_ipv4 \<Rightarrow> Inr (Sym ''ipv4'')
      | ip_type_ipv6 \<Rightarrow> Inr (Sym ''ipv6'')
      | ip_type_ipv6_reference \<Rightarrow> Inr (Sym ''ipv6_reference'')
      | ip_type_error \<Rightarrow> Inr Qfalse)"
| "Utils_ip_type v = Inl TypeError"

text \<open>
  A reference is compared as the address between its brackets: the pointer moves by one, the
  length shrinks by two.
\<close>

definition unreference :: "string \<Rightarrow> enum_ip_type \<Rightarrow> string \<times> enum_ip_type" where
  "unreference str ip_type =
     (if ip_type = ip_type_ipv6_reference then (take (length str - 2) (tl str), ip_type_ipv6)
      else (str, ip_type))"

fun Utils_compare_ips :: "pton \<Rightarrow> ruby_value \<Rightarrow> ruby_value \<Rightarrow> outcome" where
  "Utils_compare_ips pton (Str str1) (Str str2) =
     (let ip1_type = utils_ip_parser_execute str1
      in if ip1_type = ip_type_error then Inr Qnil
         else
           (let ip2_type = utils_ip_parser_execute str2
            in if ip2_type = ip_type_error then Inr Qnil
               else
                 (case unreference str1 ip1_type of
                    (s1, t1) \<Rightarrow>
                      (case unreference str2 ip2_type of
                         (s2, t2) \<Rightarrow>
                           (case utils_compare_pure_ips pton s1 t1 s2 t2 of
                              Inl e \<Rightarrow> Inl e
                            | Inr b \<Rightarrow> Inr (ruby_bool b))))))"
| "Utils_compare_ips pton v w = Inl TypeError"

fun Utils_compare_pure_ips :: "pton \<Rightarrow> ruby_value \<Rightarrow> ruby_value \<Rightarrow> outcome" where
  "Utils_compare_pure_ips pton (Str str1) (Str str2) =
     (let ip1_type = utils_ip_parser_execute str1
      in if ip1_type = ip_type_error \<or> ip1_type = ip_type_ipv6_reference then Inr Qnil
         else
           (let ip2_type = utils_ip_parser_execute str2
            in if ip2_type = ip_type_error \<or> ip2_type = ip_type_ipv6_reference then Inr Qnil
               else
                 (case utils_compare_pure_ips pton str1 ip1_type str2 ip2_type of
                    Inl e \<Rightarrow> Inl e
                  | Inr b \<Rightarrow> Inr (ruby_bool b))))"
| "Utils_compare_pure_ips pton v w = Inl TypeError"

definition is_string :: "ruby_value \<Rightarrow> bool" where
  "is_string v = (case v of Str s \<Rightarrow> True | _ \<Rightarrow> False)"

definition is_symbol :: "ruby_value \<Rightarrow> bool" where
  "is_symbol v = (case v of Sym s \<Rightarrow> True | _ \<Rightarrow> False)"

definition truthy :: "ruby_value \<Rightarrow> bool" where
  "truthy v \<longleftrightarrow> v \<noteq> Qnil \<and> v \<noteq> Qfalse"

definition Utils_normalize_ipv6 :: "pton \<Rightarrow> ntop \<Rightarrow> ruby_value list \<Rightarrow> outcome" where
  "Utils_normalize_ipv6 pton ntop argv =
     (if length argv = 0 \<or> 2 < length argv then Inl TypeError
      else if \<not> is_string (argv ! 0) then Inl TypeError
      else utils_normalize_ipv6 pton ntop (argv ! 0) (length argv = 2 \<and> truthy (argv ! 1)))"

text \<open>With one argument, \<open>argv[1]\<close> is read behind the arguments.\<close>

definition Utils_normalize_host :: "pton \<Rightarrow> ntop \<Rightarrow> ruby_value list \<Rightarrow> outcome" where
  "Utils_normalize_host pton ntop argv =
     (if length argv = 0 \<or> 3 < length argv then Inl TypeError
      else if \<not> is_string (argv ! 0) then Inl TypeError
      else if length argv \<le> 1 then Inl OutOfBounds
      else if \<not> is_symbol (argv ! 1) then Inl TypeError
      else if argv ! 1 = Sym ''ipv6'' \<or> argv ! 1 = Sym ''ipv6_reference''
      then utils_normalize_ipv6 pton ntop (argv ! 0) (length argv = 3 \<and> truthy (argv ! 2))
      else Inr (argv ! 0))"

text \<open>\<open>rb_str_new\<close> raises when the length is negative.\<close>

definition Utils_to_pure_ip :: "ruby_value \<Rightarrow> outcome" where
  "Utils_to_pure_ip string =
     (case StringValueCStr string of
        Inl e \<Rightarrow> Inl e
      | Inr str \<Rightarrow>
          (if str \<noteq> [] \<and> hd str = CHR ''['' then
             if length str < 2 then Inl ArgumentError
             else Inr (Str (take (length str - 2) (tl str)))
           else Inr string))"

subsection \<open>What is compared\<close>

text \<open>
  The family and the text the comparison hands to \<open>inet_pton\<close>: there are some when the scanner does
  not say error, also for an unfinished address such as \<open>::1.\<close>, which the scanner takes for IPv6.
\<close>

definition pure_address :: "string \<Rightarrow> (address_family \<times> string) option" where
  "pure_address str =
     (case utils_ip_parser_execute str of
        ip_type_ipv4 \<Rightarrow> Some (AF_INET, str)
      | ip_type_ipv6 \<Rightarrow> Some (AF_INET6, str)
      | ip_type_ipv6_reference \<Rightarrow> Some (AF_INET6, take (length str - 2) (tl str))
      | ip_type_error \<Rightarrow> None)"

lemma addr_text_no_zero: "addr_text t \<Longrightarrow> CHR 0x00 \<notin> set t"
proof
  assume "addr_text t" and "CHR 0x00 \<in> set t"
  then have "in_ranges [(46, 46), (48, 58), (65, 70), (97, 102)] CHR 0x00"
    by (simp add: addr_text_def list_all_iff)
  then show False by (simp add: in_ranges_def schar_def)
qed

lemma lang_addr_text:
  assumes "w \<in> lang IPv4address \<or> w \<in> lang IPv6address"
  shows "list_all (in_ranges [(46, 46), (48, 58), (65, 70), (97, 102)]) w"
proof -
  have "rx_within [(46, 46), (48, 58), (65, 70), (97, 102)] IPv4address"
    "rx_within [(46, 46), (48, 58), (65, 70), (97, 102)] IPv6address"
    by (simp_all add: ip_grammar_defs Lit_codes)
  with assms show ?thesis by (auto dest: rx_within_correct)
qed

lemma IPv6address_text: "a \<in> lang IPv6address \<Longrightarrow> addr_text a"
  using lang_addr_text ip_lengths(2) by (fastforce simp: addr_text_def)

lemma parsed_addr_text:
  assumes "utils_ip_parser_execute str = ip_type_ipv4 \<or> utils_ip_parser_execute str = ip_type_ipv6"
  shows "addr_text str"
proof -
  have "[] \<notin> lang (ip_grammars ! i)" if "i < 3" for i
    using that null_ip_rules
    by (auto simp: ip_grammars_def less_Suc_eq numeral_3_eq_3 rx_null_correct)
  moreover obtain i u w v where "i < 2" "str = u @ w" "u \<in> lang (ip_grammars ! i)"
    "str @ v \<in> lang (ip_grammars ! i)"
  proof -
    from assms obtain i where i: "i < 2" "utils_ip_parser_execute str = ip_tags ! i"
      by (metis ip_tags_def nth_Cons_0 nth_Cons_Suc One_nat_def lessI less_2_cases_iff)
    then have "i < 3" by simp
    from i(2) that [OF i(1)] show thesis unfolding ip_execute_iff [OF \<open>i < 3\<close>] by blast
  qed
  moreover from this(1,4) have "list_all (in_ranges [(46, 46), (48, 58), (65, 70), (97, 102)]) (str @ v)"
    by (intro lang_addr_text) (auto simp: ip_grammars_def less_Suc_eq numeral_2_eq_2)
  ultimately show ?thesis by (cases u) (auto simp: addr_text_def)
qed

lemma unreference_address:
  "str = ''['' @ a @ '']'' \<Longrightarrow> take (length str - 2) (tl str) = a"
  by simp

lemma pure_address_text:
  assumes "pure_address str = Some (af, a)"
  shows "addr_text a \<and> length a \<le> 45"
proof (cases "utils_ip_parser_execute str")
  case ip_type_ipv4
  with assms parsed_addr_text [of str] utils_ip_parser_ipv4_length [of str] show ?thesis
    by (simp add: pure_address_def)
next
  case ip_type_ipv6
  with assms parsed_addr_text [of str] utils_ip_parser_ipv6_length [of str] show ?thesis
    by (simp add: pure_address_def)
next
  case ip_type_ipv6_reference
  then obtain b where b: "str = ''['' @ b @ '']''" "b \<in> lang IPv6address"
    using ip_execute_reference by blast
  with assms ip_type_ipv6_reference have "a = b" by (simp add: pure_address_def)
  with b(2) IPv6address_text ip_lengths(2) show ?thesis by simp
qed (use assms in \<open>simp add: pure_address_def\<close>)

definition family_type :: "address_family \<Rightarrow> enum_ip_type" where
  "family_type af = (case af of AF_INET \<Rightarrow> ip_type_ipv4 | AF_INET6 \<Rightarrow> ip_type_ipv6)"

lemma unreference_pure:
  assumes "pure_address str = Some (af, a)"
  shows "utils_ip_parser_execute str \<noteq> ip_type_error"
    "unreference str (utils_ip_parser_execute str) = (a, family_type af)"
  using assms
  by (auto simp: pure_address_def unreference_def family_type_def split: enum_ip_type.splits)

lemma pure_address_None: "pure_address str = None \<longleftrightarrow> utils_ip_parser_execute str = ip_type_error"
  by (simp add: pure_address_def split: enum_ip_type.split)

lemma compare_pure_addresses:
  assumes laws: "inet_laws pton ntop"
    and "pure_address s1 = Some (f1, a1)" and "pure_address s2 = Some (f2, a2)"
  shows "utils_compare_pure_ips pton a1 (family_type f1) a2 (family_type f2) =
    Inr (f1 = f2 \<and> fst (pton f1 a1) = 1 \<and> fst (pton f2 a2) = 1 \<and> snd (pton f1 a1) = snd (pton f2 a2))"
proof -
  from pure_address_text [OF assms(2)] pure_address_text [OF assms(3)]
  have t: "addr_text a1" "length a1 \<le> 45" "addr_text a2" "length a2 \<le> 45" by simp_all
  have c: "c_string a1 = a1" "c_string a2 = a2"
    using t(1,3) by (auto intro: c_string_id dest: addr_text_no_zero)
  have z: "fst (pton af s) \<noteq> 0 \<longleftrightarrow> fst (pton af s) = 1" for af s
    using laws by (metis inet_laws_def zero_neq_one)
  show ?thesis
    using t(2,4) z
    by (cases f1; cases f2) (auto simp: utils_compare_pure_ips_def family_type_def c INET6_ADDRSTRLEN_def)
qed

text \<open>
  C24.  \<open>Utils_compare_ips\<close> compares addresses as binary values: it is nil when the scanner says
  error for one of the strings, true when both have the same family and the system reads the same
  bytes from them (the brackets of a reference left out), and false otherwise.  So it is false, not
  the nil of its comment, for a string that the scanner lets pass and the system reads no address
  from, such as \<open>::1.\<close>.  The copies it makes on the stack are always big enough.
\<close>

theorem Utils_compare_ips_eq:
  assumes "inet_laws pton ntop"
  shows "Utils_compare_ips pton (Str s1) (Str s2) =
    Inr (case pure_address s1 of
           None \<Rightarrow> Qnil
         | Some (f1, a1) \<Rightarrow>
             (case pure_address s2 of
                None \<Rightarrow> Qnil
              | Some (f2, a2) \<Rightarrow>
                  ruby_bool (f1 = f2 \<and> fst (pton f1 a1) = 1 \<and> fst (pton f2 a2) = 1 \<and>
                    snd (pton f1 a1) = snd (pton f2 a2))))"
proof (cases "pure_address s1")
  case None
  then have "utils_ip_parser_execute s1 = ip_type_error" by (simp add: pure_address_None)
  with None show ?thesis by simp
next
  case s1: (Some x)
  obtain f1 a1 where x: "x = (f1, a1)" by (cases x)
  show ?thesis
  proof (cases "pure_address s2")
    case None
    then have "utils_ip_parser_execute s2 = ip_type_error" by (simp add: pure_address_None)
    with None s1 x unreference_pure [of s1 f1 a1] show ?thesis by simp
  next
    case s2: (Some y)
    obtain f2 a2 where y: "y = (f2, a2)" by (cases y)
    note u1 = unreference_pure [OF s1 [unfolded x]]
    note u2 = unreference_pure [OF s2 [unfolded y]]
    show ?thesis
      using compare_pure_addresses [OF assms s1 [unfolded x] s2 [unfolded y]]
      by (simp add: u1 u2 s1 s2 x y Let_def)
  qed
qed

subsection \<open>Normalization\<close>

lemma parsed_reference:
  assumes "utils_ip_parser_execute str = ip_type_ipv6_reference"
  shows "hd str = CHR ''[''" "str \<noteq> []" "2 \<le> length str" "length str \<le> 47" "CHR 0x00 \<notin> set str"
proof -
  from assms obtain a where a: "str = ''['' @ a @ '']''" "a \<in> lang IPv6address"
    unfolding ip_execute_reference by blast
  with IPv6address_text [OF a(2)] have "CHR 0x00 \<notin> set a" by (simp add: addr_text_no_zero)
  with a ip_lengths(2) [OF a(2)]
  show "hd str = CHR ''[''" "str \<noteq> []" "2 \<le> length str" "length str \<le> 47" "CHR 0x00 \<notin> set str"
    by auto
qed

lemma addr_text_hd: "addr_text str \<Longrightarrow> hd str \<noteq> CHR ''['' \<and> str \<noteq> []"
  by (cases str) (auto simp: addr_text_def in_ranges_def schar_def)

lemma normalize_pure:
  assumes "addr_text str"
  shows "utils_normalize_ipv6 pton ntop (Str str) force =
    (if fst (pton AF_INET6 str) = 0 then Inr Qfalse
     else if fst (pton AF_INET6 str) = -1 then Inr Qnil
     else (case ntop AF_INET6 (snd (pton AF_INET6 str)) of
             Some t \<Rightarrow> Inr (Str t) | None \<Rightarrow> Inr Qnil))"
  using addr_text_hd [OF assms] addr_text_no_zero [OF assms]
  by (simp add: utils_normalize_ipv6_def Let_def split: option.split)

lemma normalize_reference:
  assumes "addr_text str" and "length str \<le> 48"
  shows "utils_normalize_ipv6 pton ntop (Str (''['' @ str @ '']'')) force =
    (if fst (pton AF_INET6 str) = 0 then Inr Qfalse
     else if fst (pton AF_INET6 str) = -1 then Inr Qnil
     else (case ntop AF_INET6 (snd (pton AF_INET6 str)) of
             Some t \<Rightarrow> if force then Inr (Str t)
               else if INET6_ADDRSTRLEN < length t then Inl OutOfBounds
               else Inr (Str (''['' @ t @ '']''))
           | None \<Rightarrow> Inr Qnil))"
  using assms addr_text_no_zero [OF assms(1)]
  by (simp add: utils_normalize_ipv6_def Let_def INET6_ADDRSTRLEN_def split: option.split)

definition unbracket :: "string \<Rightarrow> string" where
  "unbracket s = (if s \<noteq> [] \<and> hd s = CHR ''['' then take (length s - 2) (tl s) else s)"

lemma unbracket_simps:
  "addr_text a \<Longrightarrow> unbracket a = a" "unbracket (''['' @ a @ '']'') = a"
  using addr_text_hd by (auto simp: unbracket_def)

lemma inet_laws_read:
  assumes "inet_laws pton ntop" and "fst (pton AF_INET6 a) \<noteq> 0"
  obtains b t where "pton AF_INET6 a = (1, b)" "ntop AF_INET6 b = Some t" "length t < INET6_ADDRSTRLEN"
    "addr_text t" "pton AF_INET6 t = (1, b)"
proof -
  from assms have "fst (pton AF_INET6 a) = 1" by (auto simp: inet_laws_def)
  moreover from this assms(1) have "length (snd (pton AF_INET6 a)) = 16"
    by (auto simp: inet_laws_def addr_len_def)
  moreover from this assms(1) obtain t where "ntop AF_INET6 (snd (pton AF_INET6 a)) = Some t"
    "length t < INET6_ADDRSTRLEN" "addr_text t" "pton AF_INET6 t = (1, snd (pton AF_INET6 a))"
    by (auto simp: inet_laws_def)
  ultimately show thesis using that by (metis prod.collapse)
qed

text \<open>
  C25.  Normalizing what the scanner takes for an IPv6 address or reference stays inside the
  buffers.  The result is false when the system reads no address from the string; otherwise it
  is a String from which the system reads the same address, and normalizing it again gives it
  back.
\<close>

theorem utils_normalize_ipv6_idempotent:
  assumes laws: "inet_laws pton ntop"
    and str: "utils_ip_parser_execute str = ip_type_ipv6 \<or>
      utils_ip_parser_execute str = ip_type_ipv6_reference"
  shows "if fst (pton AF_INET6 (unbracket str)) = 0
    then utils_normalize_ipv6 pton ntop (Str str) force = Inr Qfalse
    else \<exists>t. utils_normalize_ipv6 pton ntop (Str str) force = Inr (Str t) \<and>
      pton AF_INET6 (unbracket t) = pton AF_INET6 (unbracket str) \<and>
      utils_normalize_ipv6 pton ntop (Str t) force = Inr (Str t)"
proof -
  have pure: "utils_normalize_ipv6 pton ntop (Str t) f = Inr (Str t)"
    if "pton AF_INET6 t = (1, b)" "ntop AF_INET6 b = Some t" "addr_text t" for t b f
    using that by (simp add: normalize_pure)
  show ?thesis
  proof (cases "utils_ip_parser_execute str = ip_type_ipv6")
    case True
    then have t: "addr_text str" by (simp add: parsed_addr_text)
    show ?thesis
    proof (cases "fst (pton AF_INET6 str) = 0")
      case True
      with t show ?thesis by (simp add: unbracket_simps normalize_pure)
    next
      case False
      obtain b u where u: "pton AF_INET6 str = (1, b)" "ntop AF_INET6 b = Some u"
        "length u < INET6_ADDRSTRLEN" "addr_text u" "pton AF_INET6 u = (1, b)"
        by (rule inet_laws_read [OF laws False])
      with t pure [OF u(5,2,4)] show ?thesis by (simp add: unbracket_simps normalize_pure)
    qed
  next
    case False
    with str obtain a where a: "str = ''['' @ a @ '']''" "a \<in> lang IPv6address"
      using ip_execute_reference by blast
    then have t: "addr_text a" "length a \<le> 48" "unbracket str = a"
      using IPv6address_text [OF a(2)] ip_lengths(2) [OF a(2)]
      by (simp_all add: unbracket_simps(2) del: append.simps)
    show ?thesis
    proof (cases "fst (pton AF_INET6 a) = 0")
      case True
      then have "utils_normalize_ipv6 pton ntop (Str str) force = Inr Qfalse"
        unfolding a(1) normalize_reference [OF t(1,2)] by simp
      with True t(3) show ?thesis by simp
    next
      case False
      obtain b u where u: "pton AF_INET6 a = (1, b)" "ntop AF_INET6 b = Some u"
        "length u < INET6_ADDRSTRLEN" "addr_text u" "pton AF_INET6 u = (1, b)"
        by (rule inet_laws_read [OF laws False])
      then have "utils_normalize_ipv6 pton ntop (Str str) force =
        Inr (Str (if force then u else ''['' @ u @ '']''))"
        unfolding a(1) normalize_reference [OF t(1,2)] by simp
      moreover have "utils_normalize_ipv6 pton ntop (Str (''['' @ u @ '']'')) False =
        Inr (Str (''['' @ u @ '']''))"
        using u by (subst normalize_reference) (simp_all add: INET6_ADDRSTRLEN_def)
      moreover have "unbracket (if force then u else ''['' @ u @ '']'') = u"
        using u(4) by (auto simp: unbracket_simps simp del: append.simps)
      ultimately show ?thesis
        using u False pure [OF u(5,2,4)] t(3) by (cases force) auto
    qed
  qed
qed

text \<open>
  C39.  Without the scanner in front of it, \<open>utils_normalize_ipv6\<close> trusts an opening bracket: it
  leaves its buffers exactly for a C string that begins with one and is alone, when the length of
  what it copies wraps around, or has 51 characters or more, when the copy and its terminating zero
  do not fit in the 49 characters of \<open>str2\<close>.
\<close>

theorem utils_normalize_ipv6_overflow:
  assumes laws: "inet_laws pton ntop"
  shows "utils_normalize_ipv6 pton ntop (Str s) force = Inl OutOfBounds \<longleftrightarrow>
    CHR 0x00 \<notin> set s \<and> s \<noteq> [] \<and> hd s = CHR ''['' \<and> (length s = 1 \<or> 51 \<le> length s)"
proof -
  let ?over = "s \<noteq> [] \<and> hd s = CHR ''['' \<and> (length s = 1 \<or> 51 \<le> length s)"
  let ?a = "if s \<noteq> [] \<and> hd s = CHR ''['' then take (length s - 2) (tl s) else s"
  have bound: "s \<noteq> [] \<and> hd s = CHR ''['' \<and> (length s < 2 \<or> INET6_ADDRSTRLEN + 3 \<le> length s - 2) \<longleftrightarrow> ?over"
    by (cases s) (auto simp: INET6_ADDRSTRLEN_def)
  show ?thesis
  proof (cases "fst (pton AF_INET6 ?a) = 0")
    case True
    then show ?thesis using bound by (auto simp: utils_normalize_ipv6_def Let_def)
  next
    case False
    obtain b t where r: "pton AF_INET6 ?a = (1, b)" "ntop AF_INET6 b = Some t" "length t < INET6_ADDRSTRLEN"
      by (rule inet_laws_read [OF laws False])
    have "\<not> INET6_ADDRSTRLEN + 3 < length t + 3" using r(3) by simp
    then show ?thesis using bound r(1,2) by (auto simp: utils_normalize_ipv6_def Let_def)
  qed
qed

text \<open>
  The predicates of the Ruby module agree with each other: \<open>ip?\<close> is true for the strings
  that have an \<open>ip_type\<close>, \<open>pure_ip?\<close> for those with type \<open>:ipv4\<close> or \<open>:ipv6\<close>, and taking the
  brackets of a reference off leaves a pure IPv6 address.
\<close>

theorem Utils_predicates_agree:
  "(Utils_is_ip (Str s) = Inr Qtrue) = (Utils_ip_type (Str s) \<noteq> Inr Qfalse) \<and>
   (Utils_is_pure_ip (Str s) = Inr Qtrue) =
     (Utils_ip_type (Str s) = Inr (Sym ''ipv4'') \<or> Utils_ip_type (Str s) = Inr (Sym ''ipv6'')) \<and>
   (Utils_ip_type (Str s) = Inr (Sym ''ipv6_reference'')) =
     (\<exists>a. Utils_to_pure_ip (Str s) = Inr (Str a) \<and> s = ''['' @ a @ '']'' \<and> a \<in> lang IPv6address)"
proof (intro conjI)
  show "(Utils_ip_type (Str s) = Inr (Sym ''ipv6_reference'')) =
     (\<exists>a. Utils_to_pure_ip (Str s) = Inr (Str a) \<and> s = ''['' @ a @ '']'' \<and> a \<in> lang IPv6address)"
    (is "?l = ?r")
  proof
    assume ?l
    then have t: "utils_ip_parser_execute s = ip_type_ipv6_reference"
      by (simp split: enum_ip_type.splits)
    then obtain a where a: "s = ''['' @ a @ '']''" "a \<in> lang IPv6address"
      unfolding ip_execute_reference by blast
    with parsed_reference [OF t] show ?r by (auto simp: Utils_to_pure_ip_def)
  next
    assume ?r
    then have "utils_ip_parser_execute s = ip_type_ipv6_reference"
      unfolding ip_execute_reference by blast
    then show ?l by simp
  qed
qed (simp_all split: enum_ip_type.split)

end
