(* ===== verification/C_Util.thy ===== *)
theory C_Util
  imports Ipv4_Spec
begin

text \<open>
  ext/common/c_util.h and the C library's \<open>strtol\<close>.  A pointer with a length is the string of
  the \<open>length\<close> characters it points to; a pointer into it is an index.  Arithmetic on \<open>int\<close> is
  undefined when a result does not fit: such a computation is \<open>None\<close>.
\<close>

subsection \<open>\<open>str_to_int\<close>\<close>

definition c_int :: "int \<Rightarrow> int option" where
  "c_int n = (if -2147483648 \<le> n \<and> n \<le> 2147483647 then Some n else None)"

fun str_to_int_loop :: "int \<Rightarrow> string \<Rightarrow> int option" where
  "str_to_int_loop number [] = Some number"
| "str_to_int_loop number (c # s) =
     (if number \<noteq> 0 \<or> c \<noteq> CHR ''0'' then
        (case c_int (number * 10) of
           None \<Rightarrow> None
         | Some n \<Rightarrow>
             (case c_int (n + schar c) of
                None \<Rightarrow> None
              | Some m \<Rightarrow>
                  (case c_int (m - schar CHR ''0'') of
                     None \<Rightarrow> None
                   | Some number' \<Rightarrow> str_to_int_loop number' s)))
      else str_to_int_loop number s)"

definition str_to_int :: "string \<Rightarrow> int option" where
  "str_to_int str = str_to_int_loop 0 str"

lemma schar_zero_code: "schar CHR ''0'' = 48"
  by (simp add: schar_def)

lemma str_to_int_loop_digits:
  assumes "list_all (\<lambda>c. 48 \<le> schar c \<and> schar c \<le> 57) s"
    and "foldl (\<lambda>n c. 10 * n + digit_val c) n s \<le> 2147483599"
  shows "str_to_int_loop (int n) s = Some (int (foldl (\<lambda>n c. 10 * n + digit_val c) n s))"
  using assms
proof (induction s arbitrary: n)
  case (Cons c s)
  let ?n = "10 * n + digit_val c"
  have c: "48 \<le> schar c" "schar c \<le> 57" using Cons.prems(1) by simp_all
  then have d: "schar c = int (digit_val c) + 48" by (simp add: digit_val_def)
  have "?n * 1 \<le> ?n * 10 ^ length s" by simp
  also have "\<dots> \<le> foldl (\<lambda>n c. 10 * n + digit_val c) ?n s" by (rule dec_val_ge)
  also have "\<dots> \<le> 2147483599" using Cons.prems(2) by simp
  finally have b: "?n \<le> 2147483599" by simp
  have IH: "str_to_int_loop (int ?n) s = Some (int (foldl (\<lambda>n c. 10 * n + digit_val c) ?n s))"
    using Cons.IH [of ?n] Cons.prems by (simp only: list.pred_inject foldl_Cons)
  show ?case
  proof (cases "n = 0 \<and> c = CHR ''0''")
    case True
    then show ?thesis using IH by (simp add: digit_val_def schar_zero_code)
  next
    case False
    have "c_int (int n * 10) = Some (int n * 10)"
      "c_int (int n * 10 + schar c) = Some (int n * 10 + schar c)"
      "c_int (int n * 10 + schar c - 48) = Some (int ?n)"
      using b d by (simp_all add: c_int_def)
    with False IH show ?thesis by (auto simp: schar_zero_code)
  qed
qed simp

lemma str_to_int_value:
  assumes "list_all (\<lambda>c. 48 \<le> schar c \<and> schar c \<le> 57) str" and "dec_val str \<le> 2147483599"
  shows "str_to_int str = Some (int (dec_val str))"
  using str_to_int_loop_digits [of str 0] assms by (simp add: str_to_int_def dec_val_def)

text \<open>
  C31.  \<open>str_to_int\<close> is the decimal value of a numeral whose value is at most 2147483599, without
  overflow on the way, zeros at the beginning included.
\<close>

theorem str_to_int_decimal:
  assumes "list_all (\<lambda>c. 48 \<le> schar c \<and> schar c \<le> 57) str" and "dec_val str \<le> 2147483599"
  shows "str_to_int str = Some (int (dec_val str))"
  by (rule str_to_int_value [OF assms])

theorem str_to_int_decimal_witness:
  "list_all (\<lambda>c. 48 \<le> schar c \<and> schar c \<le> 57) ''005060'' \<and> dec_val ''005060'' \<le> 2147483599 \<and>
   str_to_int ''005060'' = Some 5060"
proof -
  have d: "list_all (\<lambda>c. 48 \<le> schar c \<and> schar c \<le> 57) ''005060''" "dec_val ''005060'' = 5060"
    by (simp_all add: schar_def dec_val_def digit_val_def)
  then have "str_to_int ''005060'' = Some (int (dec_val ''005060''))"
    by (intro str_to_int_decimal) simp_all
  with d show ?thesis by simp
qed

text \<open>A digit string that short never overflows (a port has five digits, a status code three).\<close>

lemma dec_val_less: "list_all (\<lambda>c. 48 \<le> schar c \<and> schar c \<le> 57) w \<Longrightarrow> dec_val w < 10 ^ length w"
proof (induction w rule: rev_induct)
  case (snoc c w)
  then have "48 \<le> schar c" "schar c \<le> 57" "dec_val w < 10 ^ length w" by simp_all
  then have "digit_val c \<le> 9" "dec_val w < 10 ^ length w" by (simp_all add: digit_val_def)
  then show ?case by (simp add: dec_val_def)
qed (simp add: dec_val_def)

lemma str_to_int_short:
  assumes "list_all (\<lambda>c. 48 \<le> schar c \<and> schar c \<le> 57) str" and "length str \<le> 9"
  shows "str_to_int str = Some (int (dec_val str))"
proof (rule str_to_int_value)
  have "dec_val str < 10 ^ length str" by (rule dec_val_less [OF assms(1)])
  also have "\<dots> \<le> 10 ^ 9" using assms(2) by (intro power_increasing) simp_all
  finally show "dec_val str \<le> 2147483599" by simp
qed (rule assms(1))

subsection \<open>Searching\<close>

fun strnchr :: "string \<Rightarrow> char \<Rightarrow> nat option" where
  "strnchr [] c = None"
| "strnchr (x # s) c = (if x = c then Some 0 else map_option Suc (strnchr s c))"

definition is_upcase :: "char \<Rightarrow> bool" where
  "is_upcase c \<longleftrightarrow> schar CHR ''A'' \<le> schar c \<and> schar c \<le> schar CHR ''Z''"

fun str_find_upcase :: "string \<Rightarrow> nat option" where
  "str_find_upcase [] = None"
| "str_find_upcase (x # s) = (if is_upcase x then Some 0 else map_option Suc (str_find_upcase s))"

definition downcase_char :: "char \<Rightarrow> char" where
  "downcase_char c = (if is_upcase c then of_schar (schar c + 32) else c)"

lemma strnchr_None_iff: "strnchr s c = None \<longleftrightarrow> c \<notin> set s"
  by (induction s) auto

lemma strnchr_Some:
  "strnchr s c = Some n \<Longrightarrow> n < length s \<and> s ! n = c \<and> c \<notin> set (take n s)"
  by (induction s arbitrary: n) (auto split: if_splits)

lemma str_find_upcase_None_iff: "str_find_upcase s = None \<longleftrightarrow> list_all (\<lambda>c. \<not> is_upcase c) s"
  by (induction s) auto

lemma letter_codes: "schar CHR ''A'' = 65" "schar CHR ''Z'' = 90"
  by (simp_all add: schar_def)

lemma schar_downcase: "schar (downcase_char c) = (if is_upcase c then schar c + 32 else schar c)"
  by (auto simp: downcase_char_def is_upcase_def letter_codes)

lemma not_is_upcase_downcase [simp]: "\<not> is_upcase (downcase_char c)"
  by (auto simp: is_upcase_def schar_downcase letter_codes)

lemma downcase_char_id [simp]: "\<not> is_upcase c \<Longrightarrow> downcase_char c = c"
  by (simp add: downcase_char_def)

lemma downcase_char_idem [simp]: "downcase_char (downcase_char c) = downcase_char c"
  by simp

end
