(* ===== verification/Ruby_C_Util.thy ===== *)
theory Ruby_C_Util
  imports C_Util
begin

text \<open>
  ext/common/ruby_c_util.h: unescaping \<open>%NN\<close> and lowering the case of a string in a copy of
  it, and the C library's \<open>strtol\<close> they and the SIP parser call.  A read outside the
  allocated copy is undefined: the result is \<open>None\<close>.
\<close>

subsection \<open>\<open>strtol\<close>\<close>

definition c_isspace :: "char \<Rightarrow> bool" where
  "c_isspace c \<longleftrightarrow> schar c = 32 \<or> 9 \<le> schar c \<and> schar c \<le> 13"

definition c_digit :: "char \<Rightarrow> int" where
  "c_digit c =
     (if 48 \<le> schar c \<and> schar c \<le> 57 then schar c - 48
      else if 65 \<le> schar c \<and> schar c \<le> 90 then schar c - 55
      else if 97 \<le> schar c \<and> schar c \<le> 122 then schar c - 87
      else 36)"

definition strtol_sign :: "string \<Rightarrow> int \<times> string" where
  "strtol_sign s =
     (case s of
        [] \<Rightarrow> (1, [])
      | c # w \<Rightarrow> if c = CHR ''-'' then (-1, w) else if c = CHR ''+'' then (1, w) else (1, s))"

definition strtol_base :: "int \<Rightarrow> string \<Rightarrow> int \<times> string" where
  "strtol_base base s =
     (case s of
        z # x # d # w \<Rightarrow>
          if (base = 0 \<or> base = 16) \<and> z = CHR ''0'' \<and> (x = CHR ''x'' \<or> x = CHR ''X'') \<and> c_digit d < 16
          then (16, d # w)
          else (if base = 0 then if z = CHR ''0'' then 8 else 10 else base, s)
      | z # w \<Rightarrow> (if base = 0 then if z = CHR ''0'' then 8 else 10 else base, s)
      | [] \<Rightarrow> (if base = 0 then 10 else base, s))"

definition strtol :: "string \<Rightarrow> int \<Rightarrow> int" where
  "strtol s base =
     (case strtol_sign (dropWhile c_isspace s) of
        (sign, s1) \<Rightarrow>
          (case strtol_base base s1 of
             (b, s2) \<Rightarrow>
               max (- (2 ^ 63)) (min (2 ^ 63 - 1)
                 (sign * foldl (\<lambda>n c. n * b + c_digit c) 0 (takeWhile (\<lambda>c. c_digit c < b) s2)))))"

subsection \<open>\<open>my_rb_str_hex_unescape\<close>\<close>

text \<open>
  \<open>(char) (n & 0xFF)\<close> for the value of the two characters after the percent sign.
\<close>

definition hex_char :: "char \<Rightarrow> char \<Rightarrow> char" where
  "hex_char a b = char_of (strtol [a, b] 16 mod 256)"

text \<open>
  The loop: \<open>buf\<close> is the copy, \<open>s\<close> and \<open>t\<close> are offsets into it; the characters of the
  result are written over the ones already read.
\<close>

function hex_unescape_loop :: "string \<Rightarrow> nat \<Rightarrow> nat \<Rightarrow> nat \<Rightarrow> nat \<Rightarrow> (string \<times> nat) option" where
  "hex_unescape_loop buf s t i len =
     (if i < len then
        if length buf \<le> s then None
        else if buf ! s \<noteq> CHR ''%'' then
          hex_unescape_loop (buf[t := buf ! s]) (s + 1) (t + 1) (i + 1) len
        else if length buf \<le> s + 1 then None
        else if buf ! (s + 1) = CHR 0x00 then
          hex_unescape_loop (buf[t := buf ! s]) (s + 1) (t + 1) (i + 1) len
        else if length buf \<le> s + 2 then None
        else if buf ! (s + 2) = CHR 0x00 then
          hex_unescape_loop (buf[t := buf ! s]) (s + 1) (t + 1) (i + 1) len
        else
          hex_unescape_loop (buf[t := hex_char (buf ! (s + 1)) (buf ! (s + 2))])
            (s + 3) (t + 1) (i + 1) (len - 2)
      else Some (buf, len))"
  by pat_completeness auto
termination by (relation "measure (\<lambda>(buf, s, t, i, len). len - i)") auto

declare hex_unescape_loop.simps [simp del]

definition my_rb_str_hex_unescape :: "string \<Rightarrow> string option" where
  "my_rb_str_hex_unescape str =
     (case strnchr str CHR ''%'' of
        Some n \<Rightarrow> map_option (\<lambda>(buf, len). take len buf) (hex_unescape_loop str 0 0 0 (length str))
      | None \<Rightarrow> Some str)"

text \<open>The same without a buffer: what the loop has to produce.\<close>

fun unescape :: "string \<Rightarrow> string option" where
  "unescape [] = Some []"
| "unescape (c # w) =
     (if c \<noteq> CHR ''%'' then map_option ((#) c) (unescape w)
      else
        (case w of
           [] \<Rightarrow> None
         | a # v \<Rightarrow>
             if a = CHR 0x00 then map_option ((#) c) (unescape w)
             else
               (case v of
                  [] \<Rightarrow> None
                | b # u \<Rightarrow>
                    if b = CHR 0x00 then map_option ((#) c) (unescape w)
                    else map_option ((#) (hex_char a b)) (unescape u))))"

lemma drop_Cons_nth: "drop s buf = c # w \<Longrightarrow> s < length buf \<and> buf ! s = c \<and> drop (Suc s) buf = w"
  by (metis drop_Suc drop_all list.distinct(1) list.sel(3) not_le_imp_less nth_via_drop tl_drop)

lemma take_Suc_update: "t < length buf \<Longrightarrow> take (Suc t) (buf[t := x]) = take t buf @ [x]"
  by (simp add: take_Suc_conv_app_nth)

text \<open>One character written at \<open>t\<close>: what is left to read is untouched.\<close>

lemma hex_unescape_write:
  assumes "t < s" and "s \<le> length buf"
  shows "drop s (buf[t := x]) = drop s buf" "take (Suc t) (buf[t := x]) = take t buf @ [x]"
    "length (buf[t := x]) = length buf"
  using assms by (simp_all add: take_Suc_update)

lemma hex_unescape_loop_eq:
  assumes "drop s buf = w" and "t \<le> s" and "s + length w = length buf" and "t + length w = len"
  shows "map_option (\<lambda>(buf, len). take len buf) (hex_unescape_loop buf s t t len) =
    map_option ((@) (take t buf)) (unescape w)"
  using assms
proof (induction w arbitrary: buf s t len rule: unescape.induct)
  case 1
  then show ?case by (subst hex_unescape_loop.simps) simp
next
  case (2 c w)
  have s: "s < length buf" "buf ! s = c" "drop (Suc s) buf = w"
    using drop_Cons_nth [OF 2(5)] by simp_all
  have copy: "map_option (\<lambda>(buf, len). take len buf)
      (hex_unescape_loop (buf[t := c]) (s + 1) (t + 1) (t + 1) len) =
    map_option ((@) (take t buf)) (map_option ((#) c) (unescape w))"
    if IH: "map_option (\<lambda>(buf, len). take len buf)
      (hex_unescape_loop (buf[t := c]) (s + 1) (t + 1) (t + 1) len) =
      map_option ((@) (take (t + 1) (buf[t := c]))) (unescape w)"
    using IH s(1) 2(6) by (cases "unescape w") (simp_all add: take_Suc_update)
  have pre: "drop (s + 1) (buf[t := c]) = w" "t + 1 \<le> s + 1"
    "s + 1 + length w = length (buf[t := c])" "t + 1 + length w = len"
    using s 2(6-8) by simp_all
  show ?case
  proof (cases "c = CHR ''%''")
    case False
    from copy [OF 2(1) [OF False pre]] False s 2(6-8) show ?thesis
      by (subst hex_unescape_loop.simps) simp
  next
    case pc: True
    show ?thesis
    proof (cases w)
      case Nil
      with pc s 2(6-8) show ?thesis by (subst hex_unescape_loop.simps) simp
    next
      case w: (Cons a v)
      with s(3) have a: "s + 1 < length buf" "buf ! (s + 1) = a" "drop (s + 2) buf = v"
        using drop_Cons_nth by fastforce+
      show ?thesis
      proof (cases "a = CHR 0x00")
        case True
        from copy [OF 2(2) [OF _ w True pre]] pc w True s a 2(6-8) show ?thesis
          by (subst hex_unescape_loop.simps) simp
      next
        case anz: False
        show ?thesis
        proof (cases v)
          case Nil
          with pc anz w s a 2(6-8) show ?thesis by (subst hex_unescape_loop.simps) simp
        next
          case v: (Cons b u)
          with a(3) have b: "s + 2 < length buf" "buf ! (s + 2) = b" "drop (s + 3) buf = u"
            using drop_Cons_nth by (fastforce simp: numeral_3_eq_3)+
          show ?thesis
          proof (cases "b = CHR 0x00")
            case True
            from copy [OF 2(3) [OF _ w anz v True pre]] pc w v anz True s a b 2(6-8) show ?thesis
              by (subst hex_unescape_loop.simps) simp
          next
            case bnz: False
            have "map_option (\<lambda>(buf, len). take len buf)
                (hex_unescape_loop (buf[t := hex_char a b]) (s + 3) (t + 1) (t + 1) (len - 2)) =
              map_option ((@) (take (t + 1) (buf[t := hex_char a b]))) (unescape u)"
              using b 2(6-8) w v pc by (intro 2(4) [OF _ w anz v bnz]) simp_all
            with pc w v anz bnz s a b 2(6-8) show ?thesis
              by (subst hex_unescape_loop.simps)
                (cases "unescape u", simp_all add: take_Suc_update)
          qed
        qed
      qed
    qed
  qed
qed

lemma unescape_no_percent: "CHR ''%'' \<notin> set s \<Longrightarrow> unescape s = Some s"
  by (induction s rule: unescape.induct) auto

lemma hex_unescape_eq: "my_rb_str_hex_unescape str = unescape str"
proof (cases "strnchr str CHR ''%''")
  case None
  then have "CHR ''%'' \<notin> set str" by (simp add: strnchr_None_iff)
  then show ?thesis by (simp add: my_rb_str_hex_unescape_def None unescape_no_percent)
next
  case (Some n)
  have "map_option ((@) (take 0 str)) (unescape str) = unescape str"
    by (cases "unescape str") simp_all
  then show ?thesis
    using hex_unescape_loop_eq [of 0 str str 0 "length str"]
    by (simp add: my_rb_str_hex_unescape_def Some)
qed

text \<open>
  The in-place loop of \<open>my_rb_str_hex_unescape\<close> computes the plain recursive unescaping:
  no character is overwritten before it is read, and the length it returns is that of the
  result.
\<close>

theorem my_rb_str_hex_unescape_eq: "my_rb_str_hex_unescape str = unescape str"
  by (rule hex_unescape_eq)

text \<open>Every percent sign of the string has two characters after it.\<close>

definition complete_escapes :: "string \<Rightarrow> bool" where
  "complete_escapes s \<longleftrightarrow> list_all (\<lambda>i. s ! i = CHR ''%'' \<longrightarrow> i + 2 < length s) [0..<length s]"

lemma complete_escapes_Cons: "complete_escapes (c # w) \<Longrightarrow> complete_escapes w"
  unfolding complete_escapes_def list_all_iff
proof (rule ballI, rule impI)
  fix i
  assume all: "\<forall>i\<in>set [0..<length (c # w)]. (c # w) ! i = CHR ''%'' \<longrightarrow> i + 2 < length (c # w)"
    and i: "i \<in> set [0..<length w]" "w ! i = CHR ''%''"
  have "Suc i \<in> set [0..<length (c # w)]" "(c # w) ! Suc i = CHR ''%''" using i by auto
  with all have "Suc i + 2 < length (c # w)" by blast
  then show "i + 2 < length w" by simp
qed

lemma unescape_defined: "complete_escapes s \<Longrightarrow> unescape s \<noteq> None"
proof (induction s rule: unescape.induct)
  case (2 c w)
  from 2(5) have w: "complete_escapes w" by (rule complete_escapes_Cons)
  show ?case
  proof (cases "c = CHR ''%''")
    case True
    have "0 \<in> set [0..<length (c # w)]" "(c # w) ! 0 = CHR ''%''" using True by auto
    with 2(5) have "0 + 2 < length (c # w)" unfolding complete_escapes_def list_all_iff by blast
    then have "2 \<le> length w" by simp
    then obtain a b u where wab: "w = a # b # u"
      by (auto simp: numeral_2_eq_2 Suc_le_length_iff)
    from w have u: "complete_escapes u" unfolding wab by (rule complete_escapes_Cons [OF complete_escapes_Cons])
    have step: "unescape (c # w) = (if a = CHR 0x00 \<or> b = CHR 0x00
      then map_option ((#) c) (unescape w) else map_option ((#) (hex_char a b)) (unescape u))"
      by (subst unescape.simps) (simp add: True wab del: unescape.simps)
    have "unescape w \<noteq> None" if "a = CHR 0x00 \<or> b = CHR 0x00"
      using that 2(2) [OF _ wab _ w] 2(3) [OF _ wab _ refl _ w] True by blast
    moreover have "unescape u \<noteq> None" if "\<not> (a = CHR 0x00 \<or> b = CHR 0x00)"
      using that 2(4) [OF _ wab _ refl _ u] True by blast
    ultimately show ?thesis by (simp add: step del: unescape.simps)
  qed (use 2(1) w in auto)
qed simp

text \<open>
  C30.  \<open>my_rb_str_hex_unescape\<close> reads nothing outside the copy it allocates when two characters
  follow every percent sign, as in an \<open>escaped\<close> of the SIP grammar.
\<close>

theorem my_rb_str_hex_unescape_safe:
  "complete_escapes str \<Longrightarrow> \<exists>res. my_rb_str_hex_unescape str = Some res"
  using unescape_defined by (simp add: hex_unescape_eq)

theorem my_rb_str_hex_unescape_safe_witness:
  "complete_escapes ''a%41'' \<and> (\<exists>res. my_rb_str_hex_unescape ''a%41'' = Some res)"
proof -
  have "complete_escapes ''a%41''" by (simp add: complete_escapes_def upt_rec)
  with my_rb_str_hex_unescape_safe show ?thesis by blast
qed

text \<open>
  The parts of a string that is read from the left: a plain character, or a percent sign with the
  two characters behind it; and what may be left at its end.
\<close>

definition escape_part :: "string \<Rightarrow> bool" where
  "escape_part x \<longleftrightarrow> length x = 1 \<and> hd x \<noteq> CHR ''%'' \<or> length x = 3 \<and> hd x = CHR ''%''"

definition cut_escape :: "string \<Rightarrow> bool" where
  "cut_escape x \<longleftrightarrow> (length x = 1 \<or> length x = 2) \<and> hd x = CHR ''%''"

lemma escape_part_simps [simp]:
  "escape_part [c] \<longleftrightarrow> c \<noteq> CHR ''%''" "escape_part [c, a, b] \<longleftrightarrow> c = CHR ''%''"
  "cut_escape [c] \<longleftrightarrow> c = CHR ''%''" "cut_escape [c, a] \<longleftrightarrow> c = CHR ''%''"
  by (simp_all add: escape_part_def cut_escape_def)

lemma escape_part_cases:
  assumes "escape_part x"
  obtains c where "x = [c]" "c \<noteq> CHR ''%''" | a b where "x = [CHR ''%'', a, b]"
  using assms by (auto simp: escape_part_def length_Suc_conv numeral_3_eq_3)

lemma cut_escape_cases:
  assumes "cut_escape x"
  obtains "x = ''%''" | a where "x = [CHR ''%'', a]"
  using assms by (auto simp: cut_escape_def length_Suc_conv numeral_2_eq_2)

lemma unescape_parts:
  "\<forall>x \<in> set xs. escape_part x \<Longrightarrow> CHR 0x00 \<notin> set (concat xs) \<Longrightarrow>
   unescape (concat xs @ t) = None \<longleftrightarrow> unescape t = None"
proof (induction xs)
  case (Cons x xs)
  then have "escape_part x" and IH: "unescape (concat xs @ t) = None \<longleftrightarrow> unescape t = None" by auto
  from this(1) show ?case by (cases rule: escape_part_cases) (use IH Cons.prems(2) in auto)
qed simp

lemma unescape_cut:
  "CHR 0x00 \<notin> set s \<Longrightarrow> unescape s = None \<Longrightarrow>
   \<exists>xs t. s = concat xs @ t \<and> (\<forall>x \<in> set xs. escape_part x) \<and> cut_escape t"
proof (induction s rule: unescape.induct)
  case (2 c w)
  have cons: ?case if "c # w = x @ r" "escape_part x"
      "\<exists>xs t. r = concat xs @ t \<and> (\<forall>x \<in> set xs. escape_part x) \<and> cut_escape t" for x r
  proof -
    note rest = that(3)
    obtain xs t where "r = concat xs @ t" "\<forall>x \<in> set xs. escape_part x" "cut_escape t" using rest by blast
    then have "c # w = concat (x # xs) @ t \<and> (\<forall>y \<in> set (x # xs). escape_part y) \<and> cut_escape t"
      using that(1,2) by simp
    then show ?thesis by blast
  qed
  have cut: ?case if "cut_escape (c # w)"
    using that by (intro exI [of _ "[]"] exI [of _ "c # w"]) simp
  show ?case
  proof (cases "c = CHR ''%''")
    case False
    then show ?thesis using 2(1) 2(5,6) by (intro cons [of "[c]" w]) auto
  next
    case pc: True
    show ?thesis
    proof (cases "length w < 2")
      case True
      then have "w = [] \<or> (\<exists>a. w = [a])" by (cases w) auto
      then show ?thesis using pc by (intro cut) auto
    next
      case False
      then obtain a b u where w: "w = a # b # u" by (cases w; cases "tl w") auto
      have "a \<noteq> CHR 0x00" "b \<noteq> CHR 0x00" "CHR 0x00 \<notin> set u" using 2(5) w by auto
      then show ?thesis using 2(4) [of a "b # u" b u] 2(6) pc w by (intro cons [of "[c, a, b]" u]) auto
    qed
  qed
qed simp

text \<open>
  C38.  When \<open>my_rb_str_hex_unescape\<close> reads behind the copy it allocated, which has no
  terminating zero: for a string without zeros exactly when, plain characters and escapes of three
  characters taken off from the left, a percent sign is left with at most one character behind it.
\<close>

theorem my_rb_str_hex_unescape_overread:
  assumes "CHR 0x00 \<notin> set str"
  shows "my_rb_str_hex_unescape str = None \<longleftrightarrow>
    (\<exists>xs t. str = concat xs @ t \<and> (\<forall>x \<in> set xs. escape_part x) \<and> cut_escape t)"
proof
  assume "my_rb_str_hex_unescape str = None"
  then show "\<exists>xs t. str = concat xs @ t \<and> (\<forall>x \<in> set xs. escape_part x) \<and> cut_escape t"
    using unescape_cut [OF assms] by (simp add: hex_unescape_eq)
next
  assume "\<exists>xs t. str = concat xs @ t \<and> (\<forall>x \<in> set xs. escape_part x) \<and> cut_escape t"
  then obtain xs t where str: "str = concat xs @ t" "\<forall>x \<in> set xs. escape_part x" "cut_escape t" by blast
  then have "unescape str = None \<longleftrightarrow> unescape t = None" using assms unescape_parts [of xs t] by simp
  moreover have "unescape t = None" using str(3) assms by (cases rule: cut_escape_cases) (auto simp: str(1))
  ultimately show "my_rb_str_hex_unescape str = None" by (simp add: hex_unescape_eq)
qed

theorem my_rb_str_hex_unescape_overread_witness:
  "my_rb_str_hex_unescape ''%41 is 100%4'' = None"
proof -
  have "CHR 0x00 \<notin> set ''%41 is 100%4''" by simp
  moreover have "''%41 is 100%4'' =
      concat [''%41'', '' '', ''i'', ''s'', '' '', ''1'', ''0'', ''0''] @ ''%4''" by simp
  moreover have "\<forall>x \<in> set [''%41'', '' '', ''i'', ''s'', '' '', ''1'', ''0'', ''0'']. escape_part x"
    "cut_escape ''%4''" by simp_all
  ultimately show ?thesis using my_rb_str_hex_unescape_overread by blast
qed

text \<open>Escaping any characters, the percent sign among them, and reading the result back.\<close>

definition hex_digit :: "nat \<Rightarrow> char" where
  "hex_digit n = (if n < 10 then of_schar (48 + int n) else of_schar (55 + int n))"

definition escape :: "(char \<Rightarrow> bool) \<Rightarrow> string \<Rightarrow> string" where
  "escape P s =
     concat (map (\<lambda>c. if P c \<or> c = CHR ''%''
                    then [CHR ''%'', hex_digit (of_char c div 16), hex_digit (of_char c mod 16)]
                    else [c]) s)"

lemma schar_hex_digit: "n < 16 \<Longrightarrow> schar (hex_digit n) = (if n < 10 then 48 + int n else 55 + int n)"
  by (simp add: hex_digit_def)

lemma c_digit_hex_digit: "n < 16 \<Longrightarrow> c_digit (hex_digit n) = int n"
  by (auto simp: c_digit_def schar_hex_digit)

lemma char_code_neq: "schar c \<noteq> schar d \<Longrightarrow> c \<noteq> d"
  by auto

lemma hex_digit_plain:
  assumes "n < 16"
  shows "\<not> c_isspace (hex_digit n)" "hex_digit n \<noteq> CHR ''-''" "hex_digit n \<noteq> CHR ''+''"
    "hex_digit n \<noteq> CHR 0x00"
proof -
  have s: "48 \<le> schar (hex_digit n)" using assms by (simp add: schar_hex_digit)
  then show "\<not> c_isspace (hex_digit n)" by (auto simp: c_isspace_def)
  have "schar CHR ''-'' = 45" "schar CHR ''+'' = 43" "schar CHR 0x00 = 0"
    by (simp_all add: schar_def)
  with s show "hex_digit n \<noteq> CHR ''-''" "hex_digit n \<noteq> CHR ''+''" "hex_digit n \<noteq> CHR 0x00"
    by auto
qed

lemma strtol_hex_digits:
  assumes "m < 16" and "n < 16"
  shows "strtol [hex_digit m, hex_digit n] 16 = int (16 * m + n)"
proof -
  have "strtol_base 16 [hex_digit m, hex_digit n] = (16, [hex_digit m, hex_digit n])"
    by (simp add: strtol_base_def)
  with assms show ?thesis
    by (simp add: strtol_def strtol_sign_def hex_digit_plain c_digit_hex_digit)
qed

lemma hex_char_digits: "hex_char (hex_digit (of_char c div 16)) (hex_digit (of_char c mod 16)) = c"
proof -
  have b: "(of_char c :: nat) < 256" by simp
  then have "(of_char c :: nat) div 16 < 16" "(of_char c :: nat) mod 16 < 16"
    by (auto intro: less_mult_imp_div_less)
  then have "strtol [hex_digit (of_char c div 16), hex_digit (of_char c mod 16)] 16 = int (of_char c)"
    by (simp only: strtol_hex_digits mult_div_mod_eq)
  moreover have "int (of_char c) mod 256 = int (of_char c)" using b by simp
  ultimately show ?thesis by (simp add: hex_char_def)
qed

text \<open>
  C29.  Unescaping is inverse to escaping: whatever set of characters was escaped as
  \<open>%NN\<close>, the original string comes back.
\<close>

theorem my_rb_str_hex_unescape_escape: "my_rb_str_hex_unescape (escape P s) = Some s"
proof -
  have "unescape (escape P s) = Some s"
  proof (induction s)
    case (Cons c s)
    have "(of_char c :: nat) < 16 * 16" by simp
    then have "(of_char c :: nat) div 16 < 16" by (rule less_mult_imp_div_less)
    with Cons show ?case by (simp add: escape_def hex_digit_plain hex_char_digits)
  qed (simp add: escape_def)
  then show ?thesis by (simp only: hex_unescape_eq)
qed

subsection \<open>\<open>my_rb_str_downcase\<close>\<close>

text \<open>The loop over the copy, from index \<open>i\<close> on.\<close>

function downcase_loop :: "string \<Rightarrow> nat \<Rightarrow> string" where
  "downcase_loop buf i =
     (if i < length buf then
        downcase_loop (if is_upcase (buf ! i) then buf[i := of_schar (schar (buf ! i) + 32)] else buf) (i + 1)
      else buf)"
  by pat_completeness auto
termination by (relation "measure (\<lambda>(buf, i). length buf - i)") auto

declare downcase_loop.simps [simp del]

definition my_rb_str_downcase :: "string \<Rightarrow> string" where
  "my_rb_str_downcase str =
     (case str_find_upcase str of Some n \<Rightarrow> downcase_loop str 0 | None \<Rightarrow> str)"

lemma downcase_loop_eq:
  "i \<le> length buf \<Longrightarrow> downcase_loop buf i = take i buf @ map downcase_char (drop i buf)"
proof (induction buf i rule: downcase_loop.induct)
  case (1 buf i)
  let ?buf = "if is_upcase (buf ! i) then buf[i := of_schar (schar (buf ! i) + 32)] else buf"
  show ?case
  proof (cases "i < length buf")
    case True
    have b: "?buf = buf[i := downcase_char (buf ! i)]" by (simp add: downcase_char_def)
    have "downcase_loop buf i = downcase_loop ?buf (i + 1)"
      using True by (subst downcase_loop.simps) simp
    also have "\<dots> = take (i + 1) ?buf @ map downcase_char (drop (i + 1) ?buf)"
      using True by (intro 1(1)) simp_all
    finally show ?thesis
      unfolding b using True by (simp add: take_Suc_update Cons_nth_drop_Suc [symmetric])
  next
    case False
    with 1(2) show ?thesis by (subst downcase_loop.simps) simp
  qed
qed

lemma my_rb_str_downcase_map: "my_rb_str_downcase str = map downcase_char str"
proof (cases "str_find_upcase str")
  case None
  then have "list_all (\<lambda>c. \<not> is_upcase c) str" by (simp add: str_find_upcase_None_iff)
  then have "map downcase_char str = str" by (induction str) auto
  then show ?thesis by (simp add: my_rb_str_downcase_def None)
next
  case (Some n)
  then show ?thesis by (simp add: my_rb_str_downcase_def downcase_loop_eq)
qed

text \<open>
  \<open>my_rb_str_downcase\<close> lowers every ASCII letter and changes nothing else, whether or not
  it made a copy.
\<close>

theorem my_rb_str_downcase_eq: "my_rb_str_downcase str = map downcase_char str"
  by (rule my_rb_str_downcase_map)

end
