(* ===== verification/Inet_Reference.thy ===== *)
theory Inet_Reference
  imports Ip_Utils Ruby_C_Util
begin

text \<open>
  A pair of functions that has the documented properties of \<open>inet_pton\<close> and \<open>inet_ntop\<close>: IPv4
  addresses as dotted quads, IPv6 addresses in their full form of eight groups of four digits.
  Nothing in the model of the program uses it; it shows that the laws assumed of the system
  functions hold of something, and is the system in the concrete instances of the theorems.
\<close>

fun full_text :: "buffer \<Rightarrow> string" where
  "full_text (x # y # r) =
     hex_digit (unat x div 16) # hex_digit (unat x mod 16) #
     hex_digit (unat y div 16) # hex_digit (unat y mod 16) #
     (if r = [] then [] else CHR '':'' # full_text r)"
| "full_text r = []"

fun read_groups :: "string \<Rightarrow> buffer option" where
  "read_groups (a # b # c # d # r) =
     (if list_all (\<lambda>x. c_digit x < 16) [a, b, c, d] then
        (let x = word_of_int (16 * c_digit a + c_digit b);
             y = word_of_int (16 * c_digit c + c_digit d)
         in case r of
              [] \<Rightarrow> Some [x, y]
            | sep # r' \<Rightarrow>
                if sep = CHR '':'' then map_option (\<lambda>z. x # y # z) (read_groups r') else None)
      else None)"
| "read_groups r = None"

fun split_dots :: "string \<Rightarrow> string list" where
  "split_dots [] = [[]]"
| "split_dots (c # w) =
     (if c = CHR ''.'' then [] # split_dots w
      else (case split_dots w of [] \<Rightarrow> [[c]] | p # ps \<Rightarrow> (c # p) # ps))"

fun full_pton :: pton where
  "full_pton AF_INET t =
     (let ps = split_dots t
      in if length ps = 4 \<and> list_all (\<lambda>p. decimal p \<and> dec_val p \<le> 255) ps
         then (1, map (\<lambda>p. word_of_nat (dec_val p)) ps) else (0, []))"
| "full_pton AF_INET6 t =
     (case read_groups t of
        Some a \<Rightarrow> if length a = 16 then (1, a) else (0, [])
      | None \<Rightarrow> (0, []))"

definition full_ntop :: ntop where
  "full_ntop af a = (if af = AF_INET6 \<and> length a = 16 then Some (full_text a) else None)"

lemma byte_digits: "unat (x :: byte) div 16 < 16" "unat (x :: byte) mod 16 < 16"
proof -
  have "unat x < 16 * 16" using unsigned_less [of x] by simp
  then show "unat x div 16 < 16" by (rule less_mult_imp_div_less)
qed simp

lemma byte_of_digits: "16 * word_of_nat (unat x div 16) + word_of_nat (unat x mod 16) = (x :: byte)"
proof -
  have "x = word_of_nat (16 * (unat x div 16) + unat x mod 16)"
    by (simp only: mult_div_mod_eq) simp
  then show ?thesis by (simp only: of_nat_add of_nat_mult of_nat_numeral)
qed

lemma read_groups_full_text:
  "even (length a) \<Longrightarrow> a \<noteq> [] \<Longrightarrow> read_groups (full_text a) = Some a"
proof (induction a rule: full_text.induct)
  case (1 x y r)
  then show ?case
    by (cases "r = []") (simp_all add: c_digit_hex_digit byte_digits byte_of_digits Let_def)
qed simp_all

lemma full_text_length: "even (length a) \<Longrightarrow> a \<noteq> [] \<Longrightarrow> Suc (length (full_text a)) = 5 * (length a div 2)"
  by (induction a rule: full_text.induct) (auto split: if_splits)

lemma hex_digit_in_ranges: "n < 16 \<Longrightarrow> in_ranges [(46, 46), (48, 58), (65, 70), (97, 102)] (hex_digit n)"
  by (simp add: in_ranges_def schar_hex_digit)

lemma full_text_chars: "list_all (in_ranges [(46, 46), (48, 58), (65, 70), (97, 102)]) (full_text a)"
proof (induction a rule: full_text.induct)
  case (1 x y r)
  have "in_ranges [(46, 46), (48, 58), (65, 70), (97, 102)] CHR '':''"
    by (simp add: in_ranges_def schar_def)
  with 1 show ?case by (simp add: hex_digit_in_ranges byte_digits)
qed simp_all

lemma full_inet_laws: "inet_laws full_pton full_ntop"
proof -
  have "(fst (full_pton af s) = 0 \<or> fst (full_pton af s) = 1) \<and>
    (fst (full_pton af s) = 1 \<longrightarrow> length (snd (full_pton af s)) = addr_len af)" for af s
    by (cases af) (simp_all add: addr_len_def Let_def split: option.split)
  moreover have "\<exists>t. full_ntop AF_INET6 a = Some t \<and> length t < INET6_ADDRSTRLEN \<and> addr_text t \<and>
    full_pton AF_INET6 t = (1, a)" if "length a = 16" for a
  proof -
    have "a \<noteq> []" "even (length a)" using that by auto
    with that read_groups_full_text [of a] full_text_length [of a] full_text_chars [of a]
    show ?thesis by (auto simp: full_ntop_def INET6_ADDRSTRLEN_def addr_text_def)
  qed
  ultimately show ?thesis by (simp add: inet_laws_def)
qed

text \<open>Concrete instances of the theorems about comparing and normalizing addresses.\<close>

lemma digit_codes:
  "schar CHR ''0'' = 48" "schar CHR ''1'' = 49" "schar CHR ''2'' = 50" "schar CHR ''3'' = 51"
  "schar CHR ''4'' = 52" "schar CHR ''5'' = 53" "schar CHR ''8'' = 56" "schar CHR ''9'' = 57"
  by (simp_all add: schar_def)

lemma full_address_parsed: "utils_ip_parser_execute ''2001:0102:0000:0000:0000:0000:0000:0001'' = ip_type_ipv6"
proof -
  have "''2001:0102:0000:0000:0000:0000:0000:0001'' \<in> lang IPv6address"
    by (simp only: ip_match digit_codes cong: cert_cong)
  then show ?thesis unfolding ip_execute_ipv6 by (metis append_Nil2)
qed

lemma quad_parsed: "pure_address ''1.2.3.4'' = Some (AF_INET, ''1.2.3.4'')"
proof -
  have "''1.2.3.4'' \<in> lang IPv4address" by (simp only: ip_match cong: cert_cong)
  then have "utils_ip_parser_execute ''1.2.3.4'' = ip_type_ipv4" by (simp add: ip_execute_ipv4)
  then show ?thesis by (simp add: pure_address_def)
qed

theorem Utils_compare_ips_eq_witness:
  "Utils_compare_ips full_pton (Str ''1.2.3.4'') (Str ''1.2.3.4'') = Inr Qtrue"
  unfolding Utils_compare_ips_eq [OF full_inet_laws] quad_parsed
  by (simp add: Let_def decimal_def dec_val_def digit_val_def digit_codes ruby_bool_def)

lemma full_pton_example: "fst (full_pton AF_INET6 ''2001:0102:0000:0000:0000:0000:0000:0001'') = 1"
  by (simp add: c_digit_def digit_codes Let_def)

theorem utils_normalize_ipv6_idempotent_witness:
  "\<exists>t. utils_normalize_ipv6 full_pton full_ntop (Str ''2001:0102:0000:0000:0000:0000:0000:0001'') False = Inr (Str t) \<and>
    full_pton AF_INET6 (unbracket t) =
      full_pton AF_INET6 ''2001:0102:0000:0000:0000:0000:0000:0001'' \<and>
    utils_normalize_ipv6 full_pton full_ntop (Str t) False = Inr (Str t)"
proof -
  have "unbracket ''2001:0102:0000:0000:0000:0000:0000:0001'' = ''2001:0102:0000:0000:0000:0000:0000:0001''"
    by (simp add: unbracket_def)
  with utils_normalize_ipv6_idempotent [OF full_inet_laws disjI1 [OF full_address_parsed], of False]
    full_pton_example
  show ?thesis by (simp del: full_pton.simps)
qed

theorem utils_normalize_ipv6_overflow_witness:
  "utils_normalize_ipv6 full_pton full_ntop (Str ''['') False = Inl OutOfBounds \<and>
   utils_normalize_ipv6 full_pton full_ntop (Str (''['' @ replicate 50 CHR ''1'')) False = Inl OutOfBounds \<and>
   utils_normalize_ipv6 full_pton full_ntop (Str ''[::1]'') False \<noteq> Inl OutOfBounds"
  unfolding utils_normalize_ipv6_overflow [OF full_inet_laws] by simp

end
