(* ===== verification/Stun.thy ===== *)
theory Stun
  imports Inet_Reference
begin

unbundle bit_operations_syntax

text \<open>
  ext/stun/stun_ruby.c: the answer to a STUN Binding Request.  The response is built in an array
  on the stack whose initial content, \<open>stack\<close>, is whatever was there; words are stored and
  loaded in the little-endian order of the x86 and x86-64 the program is built for.
\<close>

definition STUN_MESSAGE_MIN_SIZE :: nat where "STUN_MESSAGE_MIN_SIZE = 20"

definition STUN_MAGIC_COOKIE_LEN :: nat where "STUN_MAGIC_COOKIE_LEN = 4"

definition STUN_TRANSACTION_ID_LEN :: nat where "STUN_TRANSACTION_ID_LEN = 12"

definition STUN_BINDING_SUCCESS_RESPONSE_IPV4_SIZE :: nat where
  "STUN_BINDING_SUCCESS_RESPONSE_IPV4_SIZE = 32"

definition STUN_BINDING_SUCCESS_RESPONSE_IPV6_SIZE :: nat where
  "STUN_BINDING_SUCCESS_RESPONSE_IPV6_SIZE = 44"

subsection \<open>Bytes and words in memory\<close>

definition char_byte :: "char \<Rightarrow> byte" where
  "char_byte c = word_of_nat (of_char c)"

definition byte_char :: "byte \<Rightarrow> char" where
  "byte_char b = char_of (unat b)"

definition load16 :: "buffer \<Rightarrow> nat \<Rightarrow> 16 word" where
  "load16 buf i = ucast (buf ! i) OR push_bit 8 (ucast (buf ! (i + 1)))"

definition load32 :: "buffer \<Rightarrow> nat \<Rightarrow> 32 word" where
  "load32 buf i =
     ucast (buf ! i) OR push_bit 8 (ucast (buf ! (i + 1))) OR
     push_bit 16 (ucast (buf ! (i + 2))) OR push_bit 24 (ucast (buf ! (i + 3)))"

definition mem16 :: "16 word \<Rightarrow> buffer" where
  "mem16 w = [ucast w, ucast (drop_bit 8 w)]"

definition mem32 :: "32 word \<Rightarrow> buffer" where
  "mem32 w = [ucast w, ucast (drop_bit 8 w), ucast (drop_bit 16 w), ucast (drop_bit 24 w)]"

definition htons :: "16 word \<Rightarrow> 16 word" where
  "htons w = push_bit 8 w OR drop_bit 8 w"

text \<open>\<open>memcpy(buf + i, bs, length bs)\<close>\<close>

definition put :: "buffer \<Rightarrow> nat \<Rightarrow> buffer \<Rightarrow> buffer" where
  "put buf i bs = take i buf @ bs @ drop (i + length bs) buf"

subsection \<open>\<open>Stun_parse_request\<close>\<close>

text \<open>The loop that combines the address with the cookie and the transaction id behind it.\<close>

fun xor_loop :: "buffer \<Rightarrow> buffer \<Rightarrow> nat \<Rightarrow> nat \<Rightarrow> buffer \<Rightarrow> buffer" where
  "xor_loop s6_addr magic_cookie i 0 xor_ipv6 = xor_ipv6"
| "xor_loop s6_addr magic_cookie i (Suc n) xor_ipv6 =
     xor_loop s6_addr magic_cookie (i + 1) n
       (xor_ipv6[i := s6_addr ! i XOR magic_cookie ! i])"

definition is_magic :: "string \<Rightarrow> bool" where
  "is_magic request \<longleftrightarrow>
     schar (request ! 4) = 33 \<and> schar (request ! 5) = 18 \<and>
     schar (request ! 6) = -92 \<and> schar (request ! 7) = 66"

text \<open>The family test: two calls of \<open>inet_pton\<close>; \<open>None\<close> stands for the returns of false.\<close>

definition source_address :: "pton \<Rightarrow> string \<Rightarrow> (address_family \<times> buffer) option" where
  "source_address pton source_ip =
     (let v4 = pton AF_INET source_ip
      in if fst v4 = 1 then Some (AF_INET, snd v4)
         else if fst v4 = -1 then None
         else
           (let v6 = pton AF_INET6 source_ip
            in if fst v6 = 1 then Some (AF_INET6, snd v6) else None))"

text \<open>The writes to the response, in the order of the code.\<close>

definition stun_header :: "buffer \<Rightarrow> buffer \<Rightarrow> buffer" where
  "stun_header response request =
     (let r = response[0 := 1, 1 := 1];
          r = put r 4 (take STUN_MAGIC_COOKIE_LEN (drop 4 request))
      in put r 8 (take STUN_TRANSACTION_ID_LEN (drop 8 request)))"

definition stun_xor_mapped ::
  "buffer \<Rightarrow> buffer \<Rightarrow> address_family \<times> buffer \<Rightarrow> 16 word \<Rightarrow> buffer" where
  "stun_xor_mapped response request addr source_port =
     (let magic_cookie = drop 4 request;
          r = response[20 := 0x00, 21 := 0x20, 24 := 0x00];
          r = r[25 := (if fst addr = AF_INET6 then 0x02 else 0x01)];
          xor_port = htons (source_port XOR load16 magic_cookie 0);
          r = put r 26 (mem16 xor_port)
      in if fst addr = AF_INET then
           (let xor_ipv4 = ucast (htons (ucast (load32 (snd addr) 0 XOR load32 magic_cookie 0)));
                r = put r 28 (mem32 xor_ipv4);
                r = r[22 := 0, 23 := 8, 2 := 0, 3 := 12]
            in take STUN_BINDING_SUCCESS_RESPONSE_IPV4_SIZE r)
         else
           (let r = put r 28 (xor_loop (snd addr) magic_cookie 0 16 (replicate 16 0));
                r = r[22 := 0, 23 := 20, 2 := 0, 3 := 24]
            in take STUN_BINDING_SUCCESS_RESPONSE_IPV6_SIZE r))"

definition stun_mapped :: "buffer \<Rightarrow> address_family \<times> buffer \<Rightarrow> 16 word \<Rightarrow> buffer" where
  "stun_mapped response addr source_port =
     (let r = response[20 := 0x00, 21 := 0x01, 24 := 0x00];
          r = r[25 := (if fst addr = AF_INET6 then 0x02 else 0x01)];
          source_port = htons source_port;
          r = put r 26 (mem16 source_port)
      in if fst addr = AF_INET then
           (let r = put r 28 (take 4 (snd addr));
                r = r[22 := 0, 23 := 8, 2 := 0, 3 := 12]
            in take STUN_BINDING_SUCCESS_RESPONSE_IPV4_SIZE r)
         else
           (let r = put r 28 (take 16 (snd addr));
                r = r[22 := 0, 23 := 20, 2 := 0, 3 := 24]
            in take STUN_BINDING_SUCCESS_RESPONSE_IPV6_SIZE r))"

text \<open>
  The function.  The first octet is read before the length is tested: for an empty String it is
  the zero Ruby keeps behind the last character.
\<close>

definition Stun_parse_request ::
  "pton \<Rightarrow> buffer \<Rightarrow> ruby_value \<Rightarrow> ruby_value \<Rightarrow> ruby_value \<Rightarrow> outcome" where
  "Stun_parse_request pton stack rb_stun_request rb_source_ip rb_source_port =
     (case rb_stun_request of
        Str request \<Rightarrow>
          if (case request of [] \<Rightarrow> CHR 0x00 | c # w \<Rightarrow> c) \<noteq> CHR 0x00 then Inr Qnil
          else if length request < STUN_MESSAGE_MIN_SIZE then Inr Qfalse
          else if \<not> is_string rb_source_ip then Inl TypeError
          else
            (case rb_source_port of
               Fix port \<Rightarrow>
                 if schar (request ! 1) \<noteq> 1 then Inr Qfalse
                 else
                   (let is_rfc3489_client = \<not> is_magic request;
                        bytes = map char_byte request;
                        response = stun_header stack bytes
                    in case StringValueCStr rb_source_ip of
                         Inl e \<Rightarrow> Inl e
                       | Inr source_ip \<Rightarrow>
                           (case source_address pton source_ip of
                              None \<Rightarrow> Inr Qfalse
                            | Some addr \<Rightarrow>
                                if port < -2147483648 \<or> 2147483647 < port then Inl RangeError
                                else
                                  (let source_port = word_of_int port
                                   in Inr (Str (map byte_char
                                        (if \<not> is_rfc3489_client
                                         then stun_xor_mapped response bytes addr source_port
                                         else stun_mapped response addr source_port))))))
             | _ \<Rightarrow> Inl TypeError)
      | _ \<Rightarrow> Inl TypeError)"

subsection \<open>The response in full\<close>

lemma list_of_nths: "length xs = n \<Longrightarrow> xs = map ((!) xs) [0..<n]"
  by (metis map_nth)

lemma explode_stack:
  "length (r :: buffer) = 44 \<Longrightarrow> r =
     [r ! 0, r ! 1, r ! 2, r ! 3, r ! 4, r ! 5, r ! 6, r ! 7, r ! 8, r ! 9, r ! 10, r ! 11, r !
      12, r ! 13, r ! 14, r ! 15, r ! 16, r ! 17, r ! 18, r ! 19, r ! 20, r ! 21, r ! 22, r !
      23, r ! 24, r ! 25, r ! 26, r ! 27, r ! 28, r ! 29, r ! 30, r ! 31, r ! 32, r ! 33, r !
      34, r ! 35, r ! 36, r ! 37, r ! 38, r ! 39, r ! 40, r ! 41, r ! 42, r ! 43]"
  by (drule list_of_nths) (simp add: upt_rec [of 0] upt_rec [of "Suc 0"] numeral_2_eq_2 [symmetric])

lemma explode16:
  "length (r :: buffer) = 16 \<Longrightarrow> r =
     [r ! 0, r ! 1, r ! 2, r ! 3, r ! 4, r ! 5, r ! 6, r ! 7, r ! 8, r ! 9, r ! 10, r ! 11, r !
      12, r ! 13, r ! 14, r ! 15]"
  by (drule list_of_nths) (simp add: upt_rec [of 0] upt_rec [of "Suc 0"] numeral_2_eq_2 [symmetric])

lemma explode4: "length (r :: buffer) = 4 \<Longrightarrow> r = [r ! 0, r ! 1, r ! 2, r ! 3]"
  by (drule list_of_nths) (simp add: upt_rec [of 0] upt_rec [of "Suc 0"] numeral_2_eq_2 [symmetric])

text \<open>What the header of the response copies from the request: cookie and transaction id.\<close>

definition stun_ids :: "buffer \<Rightarrow> buffer" where
  "stun_ids request = take 16 (drop 4 request)"

lemma stun_header_eq:
  assumes "length stack = 44" and "20 \<le> length request"
  shows "stun_header stack request =
    [1, 1, stack ! 2, stack ! 3] @ stun_ids request @ drop 20 stack"
proof -
  have "take 4 (drop 4 request) @ take 12 (drop 8 request) = stun_ids request"
    using take_add [of 4 12 "drop 4 request"] by (simp add: stun_ids_def)
  moreover obtain c where c: "take 4 (drop 4 request) = c" "length c = 4" using assms(2) by simp
  moreover obtain t where t: "take 12 (drop 8 request) = t" "length t = 12" using assms(2) by simp
  moreover have "take 4 (stack[0 := 1, Suc 0 := 1]) = [1, 1, stack ! 2, stack ! 3]"
    by (subst explode_stack [OF assms(1)]) simp
  ultimately show ?thesis
    using assms by (simp add: stun_header_def put_def STUN_MAGIC_COOKIE_LEN_def STUN_TRANSACTION_ID_LEN_def)
qed

lemma length_put [simp]: "i + length bs \<le> length buf \<Longrightarrow> length (put buf i bs) = length buf"
  by (simp add: put_def)

text \<open>A buffer of 44 bytes with everything behind the identifiers overwritten.\<close>

lemma stack_bytes:
  assumes "length (r :: buffer) = 44"
  obtains
      r0 r1 r2 r3 r4 r5 r6 r7 r8 r9 r10 r11 r12 r13 r14 r15 r16 r17 r18 r19 r20 r21 r22 r23 r24
       r25 r26 r27 r28 r29 r30 r31 r32 r33 r34 r35 r36 r37 r38 r39 r40 r41 r42 r43
  where "r =
      [r0, r1, r2, r3, r4, r5, r6, r7, r8, r9, r10, r11, r12, r13, r14, r15, r16, r17, r18,
       r19, r20, r21, r22, r23, r24, r25, r26, r27, r28, r29, r30, r31, r32, r33, r34, r35,
       r36, r37, r38, r39, r40, r41, r42, r43]"
  by (rule that [OF explode_stack [OF assms]])

lemma addr4_bytes:
  assumes "length (a :: buffer) = 4"
  obtains a0 a1 a2 a3 where "a = [a0, a1, a2, a3]"
  by (rule that [OF explode4 [OF assms]])

lemma addr16_bytes:
  assumes "length (a :: buffer) = 16"
  obtains a0 a1 a2 a3 a4 a5 a6 a7 a8 a9 a10 a11 a12 a13 a14 a15
  where "a = [a0, a1, a2, a3, a4, a5, a6, a7, a8, a9, a10, a11, a12, a13, a14, a15]"
  by (rule that [OF explode16 [OF assms]])

lemma put_frame4:
  assumes "length (r :: buffer) = 44" and "length a = 4"
  shows "take 32 ((put (put (r[20 := t0, 21 := t1, 24 := z, 25 := f]) 26 [p0, p1]) 28 a)
      [22 := l0, 23 := l1, 2 := m0, 3 := m1]) =
    [r ! 0, r ! 1, m0, m1] @ take 16 (drop 4 r) @ [t0, t1, l0, l1, z, f, p0, p1] @ a"
  by (rule stack_bytes [OF assms(1)], rule addr4_bytes [OF assms(2)]) (simp add: put_def)

lemma put_frame16:
  assumes "length (r :: buffer) = 44" and "length a = 16"
  shows "take 44 ((put (put (r[20 := t0, 21 := t1, 24 := z, 25 := f]) 26 [p0, p1]) 28 a)
      [22 := l0, 23 := l1, 2 := m0, 3 := m1]) =
    [r ! 0, r ! 1, m0, m1] @ take 16 (drop 4 r) @ [t0, t1, l0, l1, z, f, p0, p1] @ a"
  by (rule stack_bytes [OF assms(1)], rule addr16_bytes [OF assms(2)]) (simp add: put_def)

text \<open>Words in network byte order.\<close>

lemma mem16_htons: "mem16 (htons w) = [ucast (drop_bit 8 w), ucast w]"
  by (auto simp: mem16_def htons_def bit_simps intro!: bit_word_eqI)

lemma bit_byte [simp]: "bit (b :: byte) (8 + n) = False"
  by (auto dest: bit_imp_le_length)

lemma bit_byte_ge: "8 \<le> n \<Longrightarrow> bit (b :: byte) n = False"
  using bit_byte [of b "n - 8"] by simp

lemma mem16_xor_cookie:
  "mem16 (htons (w XOR load16 m 0)) = [ucast (drop_bit 8 w) XOR m ! 1, ucast w XOR m ! 0]"
  by (auto simp: mem16_htons load16_def bit_simps intro!: bit_word_eqI)

lemma mem32_xor_cookie:
  "mem32 (ucast (htons (ucast (load32 a 0 XOR load32 m 0)))) = [a ! 1 XOR m ! 1, a ! 0 XOR m ! 0, 0, 0]"
  by (auto simp: mem32_def htons_def load32_def bit_simps intro!: bit_word_eqI)

lemma xor_loop_eq:
  "i + n \<le> length x \<Longrightarrow>
    xor_loop a m i n x = take i x @ map (\<lambda>j. a ! j XOR m ! j) [i..<i + n] @ drop (i + n) x"
proof (induction n arbitrary: i x)
  case (Suc n)
  have "[i..<i + Suc n] = i # [Suc i..<Suc i + n]" by (simp add: upt_conv_Cons)
  moreover have "take (Suc i) (x[i := v]) = take i x @ [v]" for v
    using Suc.prems by (simp add: take_Suc_conv_app_nth)
  ultimately show ?case using Suc.IH [of "Suc i" "x[i := a ! i XOR m ! i]"] Suc.prems
    by (simp add: drop_update_cancel)
qed simp

lemma xor_loop_16:
  "length a = 16 \<Longrightarrow> 16 \<le> length m \<Longrightarrow>
    xor_loop a m 0 16 (replicate 16 0) = map2 (XOR) a (take 16 m)"
  by (simp add: xor_loop_eq list_eq_iff_nth_eq)

text \<open>
  The response as one list: header, cookie and transaction id, the attribute with its length,
  the family, the port and the address.
\<close>

definition stun_response :: "bool \<Rightarrow> buffer \<Rightarrow> address_family \<times> buffer \<Rightarrow> 16 word \<Rightarrow> buffer" where
  "stun_response rfc3489 ids addr port =
     [1, 1, 0, if fst addr = AF_INET then 12 else 24] @ ids @
     [0, if rfc3489 then 0x01 else 0x20, 0, if fst addr = AF_INET then 8 else 20,
      0, if fst addr = AF_INET then 0x01 else 0x02] @
     (if rfc3489 then [ucast (drop_bit 8 port), ucast port]
      else [ucast (drop_bit 8 port) XOR ids ! 1, ucast port XOR ids ! 0]) @
     (if rfc3489 then snd addr
      else if fst addr = AF_INET then [snd addr ! 1 XOR ids ! 1, snd addr ! 0 XOR ids ! 0, 0, 0]
      else map2 (XOR) (snd addr) ids)"

lemma length_stun_header: "length stack = 44 \<Longrightarrow> 20 \<le> length req \<Longrightarrow> length (stun_header stack req) = 44"
  by (simp add: stun_header_eq stun_ids_def)

lemma stun_header_fields:
  assumes "length stack = 44" and "20 \<le> length req"
  shows "stun_header stack req ! 0 = 1" "stun_header stack req ! 1 = 1"
    "take 16 (drop 4 (stun_header stack req)) = stun_ids req"
  using assms by (simp_all add: stun_header_eq stun_ids_def)

lemma stun_ids_nth: "20 \<le> length req \<Longrightarrow> i < 16 \<Longrightarrow> stun_ids req ! i = drop 4 req ! i"
  by (simp add: stun_ids_def)

lemma stun_mapped_eq:
  assumes "length stack = 44" and "20 \<le> length req" and "length (snd addr) = addr_len (fst addr)"
  shows "stun_mapped (stun_header stack req) addr port = stun_response True (stun_ids req) addr port"
proof (cases "fst addr")
  case AF_INET
  with assms(3) have "length (snd addr) = 4" by (simp add: addr_len_def)
  with AF_INET put_frame4 [OF length_stun_header [OF assms(1,2)]] show ?thesis
    by (simp add: stun_mapped_def stun_response_def Let_def mem16_htons
        stun_header_fields [OF assms(1,2), simplified] STUN_BINDING_SUCCESS_RESPONSE_IPV4_SIZE_def)
next
  case AF_INET6
  with assms(3) have "length (snd addr) = 16" by (simp add: addr_len_def)
  with AF_INET6 put_frame16 [OF length_stun_header [OF assms(1,2)]] show ?thesis
    by (simp add: stun_mapped_def stun_response_def Let_def mem16_htons
        stun_header_fields [OF assms(1,2), simplified] STUN_BINDING_SUCCESS_RESPONSE_IPV6_SIZE_def)
qed

lemma stun_xor_mapped_eq:
  assumes "length stack = 44" and "20 \<le> length req" and "length (snd addr) = addr_len (fst addr)"
  shows "stun_xor_mapped (stun_header stack req) req addr port =
    stun_response False (stun_ids req) addr port"
proof (cases "fst addr")
  case AF_INET
  have "length [snd addr ! 1 XOR drop 4 req ! 1, snd addr ! 0 XOR drop 4 req ! 0, 0, 0 :: byte] = 4"
    by simp
  from put_frame4 [OF length_stun_header [OF assms(1,2)] this] AF_INET assms(2) show ?thesis
    by (simp add: stun_xor_mapped_def stun_response_def Let_def mem16_xor_cookie [simplified]
        mem32_xor_cookie [simplified] stun_ids_nth
        stun_header_fields [OF assms(1,2), simplified] STUN_BINDING_SUCCESS_RESPONSE_IPV4_SIZE_def)
next
  case AF_INET6
  with assms(3) have l: "length (snd addr) = 16" by (simp add: addr_len_def)
  have x: "xor_loop (snd addr) (drop 4 req) 0 16 (replicate 16 0) = map2 (XOR) (snd addr) (stun_ids req)"
    using l assms(2) by (simp add: xor_loop_16 stun_ids_def)
  have "length (map2 (XOR) (snd addr) (stun_ids req)) = 16"
    using l assms(2) by (simp add: stun_ids_def)
  from put_frame16 [OF length_stun_header [OF assms(1,2)] this] AF_INET6 assms(2) x show ?thesis
    by (simp add: stun_xor_mapped_def stun_response_def Let_def mem16_xor_cookie [simplified] stun_ids_nth
        stun_header_fields [OF assms(1,2), simplified] STUN_BINDING_SUCCESS_RESPONSE_IPV6_SIZE_def
       )
qed

lemma char_byte_byte_char [simp]: "char_byte (byte_char b) = b"
proof -
  have "unat b < 256" using unsigned_less [of b] by simp
  then show ?thesis by (simp add: char_byte_def byte_char_def)
qed

lemma char_byte_map [simp]: "map (char_byte \<circ> byte_char) bs = bs"
  by (simp add: comp_def)

lemma source_address_length:
  assumes "inet_laws pton ntop" and "source_address pton ip = Some addr"
  shows "length (snd addr) = addr_len (fst addr)"
proof -
  have "length (snd (pton af ip)) = addr_len af" if "fst (pton af ip) = 1" for af
    using assms(1) that by (auto simp: inet_laws_def)
  then show ?thesis using assms(2) by (auto simp: source_address_def Let_def split: if_splits)
qed

text \<open>A Binding Request of at least 20 bytes.\<close>

definition binding_request :: "string \<Rightarrow> bool" where
  "binding_request req \<longleftrightarrow>
     STUN_MESSAGE_MIN_SIZE \<le> length req \<and> req ! 0 = CHR 0x00 \<and> schar (req ! 1) = 1"

text \<open>
  What the function returns, branch by branch, with the response as a list: it does not depend
  on what was on the stack.
\<close>

lemma Stun_parse_request_cases:
  assumes "inet_laws pton ntop" and "length stack = 44"
  shows "Stun_parse_request pton stack (Str req) (Str ip) (Fix port) =
    (if req \<noteq> [] \<and> req ! 0 \<noteq> CHR 0x00 then Inr Qnil
     else if \<not> binding_request req then Inr Qfalse
     else if CHR 0x00 \<in> set ip then Inl ArgumentError
     else (case source_address pton ip of
             None \<Rightarrow> Inr Qfalse
           | Some addr \<Rightarrow>
               if port < -2147483648 \<or> 2147483647 < port then Inl RangeError
               else Inr (Str (map byte_char
                 (stun_response (\<not> is_magic req) (stun_ids (map char_byte req)) addr (word_of_int port))))))"
proof (cases "binding_request req")
  case True
  then have req: "20 \<le> length (map char_byte req)" "\<not> length req < STUN_MESSAGE_MIN_SIZE"
    "req \<noteq> []" "(case req of [] \<Rightarrow> CHR 0x00 | c # w \<Rightarrow> c) = CHR 0x00" "schar (req ! 1) = 1" "req ! 0 = CHR 0x00"
    by (auto simp: binding_request_def STUN_MESSAGE_MIN_SIZE_def split: list.split)
  have "stun_mapped (stun_header stack (map char_byte req)) addr p =
      stun_response True (stun_ids (map char_byte req)) addr p"
    "stun_xor_mapped (stun_header stack (map char_byte req)) (map char_byte req) addr p =
      stun_response False (stun_ids (map char_byte req)) addr p"
    if "source_address pton ip = Some addr" for addr p
    using source_address_length [OF assms(1) that] assms(2) req(1)
    by (simp_all only: stun_mapped_eq stun_xor_mapped_eq)
  with req True show ?thesis
    by (simp add: Stun_parse_request_def is_string_def Let_def split: option.split)
next
  case False
  then show ?thesis
    by (cases req) (auto simp: Stun_parse_request_def is_string_def binding_request_def
        STUN_MESSAGE_MIN_SIZE_def Let_def)
qed

text \<open>
  C22.  \<open>Stun_parse_request\<close> on every branch: nil when the first octet is not zero (the comment
  at that test says false), false for a short message, for another message type and, though the
  message is a valid request, for a source that is no address, and otherwise a response of which
  every byte was written, whatever was on the stack.
\<close>

theorem Stun_parse_request_eq:
  assumes "inet_laws pton ntop" and "length stack = 44"
  shows "Stun_parse_request pton stack (Str req) (Str ip) (Fix port) =
    (if req \<noteq> [] \<and> req ! 0 \<noteq> CHR 0x00 then Inr Qnil
     else if \<not> binding_request req then Inr Qfalse
     else if CHR 0x00 \<in> set ip then Inl ArgumentError
     else (case source_address pton ip of
             None \<Rightarrow> Inr Qfalse
           | Some addr \<Rightarrow>
               if port < -2147483648 \<or> 2147483647 < port then Inl RangeError
               else Inr (Str (map byte_char
                 (stun_response (\<not> is_magic req) (stun_ids (map char_byte req)) addr (word_of_int port))))))"
  by (rule Stun_parse_request_cases [OF assms])

subsection \<open>What a client reads from the response\<close>

text \<open>
  RFC 3489 and RFC 5389 clients: the fields of the attribute behind the 20 bytes of the header,
  and for XOR-MAPPED-ADDRESS the exclusive or with the cookie and the transaction id taken off.
\<close>

definition be16 :: "byte \<Rightarrow> byte \<Rightarrow> 16 word" where
  "be16 hi lo = push_bit 8 (ucast hi) OR ucast lo"

definition mapped_address :: "buffer \<Rightarrow> byte \<times> 16 word \<times> buffer" where
  "mapped_address resp = (resp ! 25, be16 (resp ! 26) (resp ! 27), drop 28 resp)"

definition xor_mapped_address :: "buffer \<Rightarrow> byte \<times> 16 word \<times> buffer" where
  "xor_mapped_address resp =
     (resp ! 25, be16 (resp ! 26 XOR resp ! 4) (resp ! 27 XOR resp ! 5),
      map2 (XOR) (drop 28 resp) (drop 4 resp))"

definition family_code :: "address_family \<Rightarrow> byte" where
  "family_code af = (case af of AF_INET \<Rightarrow> 1 | AF_INET6 \<Rightarrow> 2)"

definition answers :: "outcome \<Rightarrow> (buffer \<Rightarrow> bool) \<Rightarrow> bool" where
  "answers r P \<longleftrightarrow> (case r of Inr (Str resp) \<Rightarrow> P (map char_byte resp) | _ \<Rightarrow> False)"

lemma be16_bytes: "be16 (ucast (drop_bit 8 p)) (ucast p) = (p :: 16 word)"
  by (auto simp: be16_def bit_simps intro!: bit_word_eqI)

lemma stun_request_ids:
  assumes "binding_request req"
  obtains i0 i1 i2 i3 i4 i5 i6 i7 i8 i9 i10 i11 i12 i13 i14 i15
  where "stun_ids (map char_byte req) =
    [i0, i1, i2, i3, i4, i5, i6, i7, i8, i9, i10, i11, i12, i13, i14, i15]"
proof -
  have "length (stun_ids (map char_byte req)) = 16"
    using assms by (auto simp: stun_ids_def binding_request_def STUN_MESSAGE_MIN_SIZE_def)
  then show thesis by (rule addr16_bytes) (rule that)
qed

lemma Stun_answer:
  assumes "inet_laws pton ntop" and "length stack = 44" and "binding_request req"
    and "CHR 0x00 \<notin> set ip" and "source_address pton ip = Some addr"
    and "0 \<le> port" and "port < 65536"
  shows "answers (Stun_parse_request pton stack (Str req) (Str ip) (Fix port)) P \<longleftrightarrow>
    P (stun_response (\<not> is_magic req) (stun_ids (map char_byte req)) addr (word_of_int port))"
proof -
  have "\<not> (req \<noteq> [] \<and> req ! 0 \<noteq> CHR 0x00)" using assms(3) by (simp add: binding_request_def)
  with assms show ?thesis
    by (auto simp: Stun_parse_request_cases [OF assms(1,2)] answers_def)
qed

text \<open>
  C23.  An RFC 3489 client, recognised by the missing magic cookie, reads from the response
  exactly the family, the port and the address the request came from, and finds its own
  transaction id in it.
\<close>

theorem Stun_mapped_address_correct:
  assumes "inet_laws pton ntop" and "length stack = 44" and "binding_request req"
    and "CHR 0x00 \<notin> set ip" and "source_address pton ip = Some (af, a)"
    and "0 \<le> port" and "port < 65536" and "\<not> is_magic req"
  shows "answers (Stun_parse_request pton stack (Str req) (Str ip) (Fix port))
    (\<lambda>resp. take 4 resp = [1, 1, 0, of_nat (length resp - 20)] \<and>
       take 16 (drop 4 resp) = map char_byte (take 16 (drop 4 req)) \<and>
       mapped_address resp = (family_code af, word_of_int port, a))"
proof -
  have l: "length a = addr_len af" using source_address_length [OF assms(1,5)] by simp
  have ids: "map char_byte (take 16 (drop 4 req)) = stun_ids (map char_byte req)"
    by (simp add: stun_ids_def take_map drop_map)
  obtain i0 i1 i2 i3 i4 i5 i6 i7 i8 i9 i10 i11 i12 i13 i14 i15
    where i: "stun_ids (map char_byte req) =
      [i0, i1, i2, i3, i4, i5, i6, i7, i8, i9, i10, i11, i12, i13, i14, i15]"
    by (rule stun_request_ids [OF assms(3)])
  have "(case af of AF_INET \<Rightarrow> 4 | AF_INET6 \<Rightarrow> 16) = length a" using l by (simp add: addr_len_def)
  with assms(8) show ?thesis
    unfolding Stun_answer [OF assms(1-7)] ids i
    by (cases af) (simp_all add: stun_response_def mapped_address_def be16_bytes family_code_def)
qed

lemma char_byte_schar: "char_byte c = word_of_int (schar c)"
proof -
  have "word_of_int (schar c) = (word_of_int (schar c mod 256) :: byte)"
    by (simp add: word_of_int_eq_iff take_bit_eq_mod)
  also have "\<dots> = word_of_nat (of_char c)" by (simp add: schar_mod of_char_int_eq)
  finally show ?thesis by (simp add: char_byte_def)
qed

lemma magic_ids:
  assumes "binding_request req" and "is_magic req"
  obtains i4 i5 i6 i7 i8 i9 i10 i11 i12 i13 i14 i15
  where "stun_ids (map char_byte req) =
    [0x21, 0x12, 0xA4, 0x42, i4, i5, i6, i7, i8, i9, i10, i11, i12, i13, i14, i15]"
proof -
  obtain i0 i1 i2 i3 i4 i5 i6 i7 i8 i9 i10 i11 i12 i13 i14 i15
    where i: "stun_ids (map char_byte req) =
      [i0, i1, i2, i3, i4, i5, i6, i7, i8, i9, i10, i11, i12, i13, i14, i15]"
    by (rule stun_request_ids [OF assms(1)])
  have l: "20 \<le> length req" using assms(1) by (simp add: binding_request_def STUN_MESSAGE_MIN_SIZE_def)
  then have n: "stun_ids (map char_byte req) ! k = char_byte (req ! (4 + k))" if "k < 16" for k
    using that by (simp add: stun_ids_def)
  from n [of 0] n [of 1] n [of 2] n [of 3] assms(2) have "i0 = 0x21" "i1 = 0x12" "i2 = 0xA4" "i3 = 0x42"
    by (simp_all add: i is_magic_def char_byte_schar)
  with i that show thesis by simp
qed

lemma be16_xor: "be16 (a XOR b) (c XOR d) = be16 a c XOR be16 b d"
  by (auto simp: be16_def bit_simps bit_byte_ge intro!: bit_word_eqI)

lemma xor_cancel: "(x XOR m) XOR m = (x :: byte)"
  by (simp add: xor.assoc)

text \<open>
  C32.  An RFC 5389 client whose request came over IPv6 reads from the response the address the
  request came from, but not the port: the halves of the magic cookie are combined with it in
  the order of the host, so the port is off by an exclusive or with 0x3333.
\<close>

theorem Stun_xor_mapped_address_ipv6:
  assumes "inet_laws pton ntop" and "length stack = 44" and "binding_request req"
    and "CHR 0x00 \<notin> set ip" and "source_address pton ip = Some (AF_INET6, a)"
    and "0 \<le> port" and "port < 65536" and "is_magic req"
  shows "answers (Stun_parse_request pton stack (Str req) (Str ip) (Fix port))
    (\<lambda>resp. xor_mapped_address resp = (2, word_of_int port XOR 0x3333, a))"
proof -
  have l: "length a = 16" using source_address_length [OF assms(1,5)] by (simp add: addr_len_def)
  obtain i4 i5 i6 i7 i8 i9 i10 i11 i12 i13 i14 i15
    where i: "stun_ids (map char_byte req) =
      [0x21, 0x12, 0xA4, 0x42, i4, i5, i6, i7, i8, i9, i10, i11, i12, i13, i14, i15]"
    by (rule magic_ids [OF assms(3,8)])
  obtain a0 a1 a2 a3 a4 a5 a6 a7 a8 a9 a10 a11 a12 a13 a14 a15
    where a: "a = [a0, a1, a2, a3, a4, a5, a6, a7, a8, a9, a10, a11, a12, a13, a14, a15]"
    by (rule addr16_bytes [OF l])
  show ?thesis
    unfolding Stun_answer [OF assms(1-7)] i a using assms(8)
    by (simp add: stun_response_def xor_mapped_address_def be16_xor be16_bytes xor_cancel xor.assoc)
      (simp add: be16_def)
qed

lemma port_xor_neq: "p XOR 0x3333 \<noteq> (p :: 16 word)"
proof
  assume "p XOR 0x3333 = p"
  then have "(p XOR p) XOR 0x3333 = p XOR p" by (simp only: xor.assoc)
  then show False by simp
qed

text \<open>
  C33.  An RFC 5389 client whose request came over IPv4 reads always a wrong port from the response,
  and an address of which only the first two bytes depend on the source: the address is cut to 16
  bits in \<open>htons\<close> and its two bytes are swapped.  What it reads is the source's address exactly for
  an address of the form \<open>x.y.164.66\<close> where \<open>y\<close> is \<open>x\<close> exclusive or 0x33.
\<close>

theorem Stun_xor_mapped_address_ipv4:
  assumes "inet_laws pton ntop" and "length stack = 44" and "binding_request req"
    and "CHR 0x00 \<notin> set ip" and "source_address pton ip = Some (AF_INET, a)"
    and "0 \<le> port" and "port < 65536" and "is_magic req"
  shows "answers (Stun_parse_request pton stack (Str req) (Str ip) (Fix port))
    (\<lambda>resp. xor_mapped_address resp =
         (1, word_of_int port XOR 0x3333, [a ! 1 XOR 0x33, a ! 0 XOR 0x33, 0xA4, 0x42]) \<and>
       fst (snd (xor_mapped_address resp)) \<noteq> word_of_int port \<and>
       (snd (snd (xor_mapped_address resp)) = a \<longleftrightarrow> a ! 1 = a ! 0 XOR 0x33 \<and> a ! 2 = 0xA4 \<and> a ! 3 = 0x42))"
proof -
  have l: "length a = 4" using source_address_length [OF assms(1,5)] by (simp add: addr_len_def)
  obtain a0 a1 a2 a3 where a: "a = [a0, a1, a2, a3]" by (rule addr4_bytes [OF l])
  have flip: "(a1 XOR 0x33 = a0 \<and> a0 XOR 0x33 = a1) \<longleftrightarrow> a1 = a0 XOR 0x33" for a0 a1 :: byte
    by (auto simp: xor.assoc)
  obtain i4 i5 i6 i7 i8 i9 i10 i11 i12 i13 i14 i15
    where i: "stun_ids (map char_byte req) =
      [0x21, 0x12, 0xA4, 0x42, i4, i5, i6, i7, i8, i9, i10, i11, i12, i13, i14, i15]"
    by (rule magic_ids [OF assms(3,8)])
  let ?resp = "stun_response (\<not> is_magic req) (stun_ids (map char_byte req)) (AF_INET, a) (word_of_int port)"
  have x: "xor_mapped_address ?resp =
      (1, word_of_int port XOR 0x3333, [a ! 1 XOR 0x33, a ! 0 XOR 0x33, 0xA4, 0x42])"
    unfolding i using assms(8)
    by (simp add: stun_response_def xor_mapped_address_def be16_xor be16_bytes xor.assoc)
      (simp add: be16_def)
  show ?thesis
    unfolding Stun_answer [OF assms(1-7)] x using flip [of a1 a0] by (auto simp: a port_xor_neq)
qed

subsection \<open>Concrete requests\<close>

definition example_request :: "string \<Rightarrow> string" where
  "example_request cookie = [CHR 0x00, CHR 0x01, CHR 0x00, CHR 0x00] @ cookie @ ''transaction1''"

definition magic_cookie_chars :: string where
  "magic_cookie_chars = [CHR 0x21, CHR 0x12, CHR 0xA4, CHR 0x42]"

lemma example_requests:
  "binding_request (example_request magic_cookie_chars)" "is_magic (example_request magic_cookie_chars)"
  "binding_request (example_request ''3489'')" "\<not> is_magic (example_request ''3489'')"
  by (simp_all add: example_request_def magic_cookie_chars_def binding_request_def is_magic_def
      STUN_MESSAGE_MIN_SIZE_def schar_def)

lemma example_addresses:
  "source_address full_pton ''1.2.3.4'' = Some (AF_INET, [1, 2, 3, 4])"
  "source_address full_pton ''2001:0102:0000:0000:0000:0000:0000:0001'' =
    Some (AF_INET6, [0x20, 0x01, 1, 2, 0, 0, 0, 0, 0, 0, 0, 0, 0, 0, 0, 1])"
  "CHR 0x00 \<notin> set ''1.2.3.4''"
  "CHR 0x00 \<notin> set ''2001:0102:0000:0000:0000:0000:0000:0001''"
  by (simp_all add: source_address_def Let_def decimal_def dec_val_def digit_val_def digit_codes c_digit_def)

theorem Stun_mapped_address_correct_witness:
  "answers (Stun_parse_request full_pton (replicate 44 0xFF) (Str (example_request ''3489''))
      (Str ''1.2.3.4'') (Fix 5060))
    (\<lambda>resp. take 4 resp = [1, 1, 0, of_nat (length resp - 20)] \<and>
       take 16 (drop 4 resp) = map char_byte (take 16 (drop 4 (example_request ''3489''))) \<and>
       mapped_address resp = (1, 5060, [1, 2, 3, 4]))"
  using Stun_mapped_address_correct [OF full_inet_laws _ example_requests(3) example_addresses(3,1)
      _ _ example_requests(4), of "replicate 44 0xFF" 5060]
  by (simp add: family_code_def)

theorem Stun_xor_mapped_address_ipv6_witness:
  "answers (Stun_parse_request full_pton (replicate 44 0xFF) (Str (example_request magic_cookie_chars))
      (Str ''2001:0102:0000:0000:0000:0000:0000:0001'') (Fix 5060))
    (\<lambda>resp. xor_mapped_address resp =
       (2, 5060 XOR 0x3333, [0x20, 0x01, 1, 2, 0, 0, 0, 0, 0, 0, 0, 0, 0, 0, 0, 1]))"
  using Stun_xor_mapped_address_ipv6 [OF full_inet_laws _ example_requests(1) example_addresses(4,2)
      _ _ example_requests(2), of "replicate 44 0xFF" 5060]
  by simp

theorem Stun_xor_mapped_address_ipv4_witness:
  "answers (Stun_parse_request full_pton (replicate 44 0xFF) (Str (example_request magic_cookie_chars))
      (Str ''1.2.3.4'') (Fix 5060))
    (\<lambda>resp. xor_mapped_address resp = (1, 5060 XOR 0x3333, [2 XOR 0x33, 1 XOR 0x33, 0xA4, 0x42]) \<and>
       snd (snd (xor_mapped_address resp)) \<noteq> [1, 2, 3, 4])"
  using Stun_xor_mapped_address_ipv4 [OF full_inet_laws _ example_requests(1) example_addresses(3,1)
      _ _ example_requests(2), of "replicate 44 0xFF" 5060]
  by (simp add: answers_def split: sum.splits ruby_value.splits)

theorem Stun_parse_request_eq_witness:
  "Stun_parse_request full_pton (replicate 44 0xFF) (Str ''OPTIONS sip:a SIP/2.0'') (Str ''1.2.3.4'') (Fix 5060) =
    Inr Qnil"
  using Stun_parse_request_eq [OF full_inet_laws, of "replicate 44 0xFF"] by simp

end
