(* ===== verification/Streams.thy ===== *)
theory Streams
  imports Prelude
begin

text \<open>
  The contract of an incremental scanner: a step on a state, with a state that no input leaves.
  A client feeds it chunks; the scanner may stop reading at the first rejected symbol.  What
  the client relies on is that chunks behave like one text.
\<close>

locale absorbing_scanner =
  fixes step :: "'s \<Rightarrow> 'c \<Rightarrow> 's"
    and reject :: 's
  assumes reject_stays: "step reject c = reject"
begin

lemma run_reject: "foldl step reject w = reject"
  by (induction w) (simp_all add: reject_stays)

lemma run_chunks: "foldl (foldl step) s chunks = foldl step s (concat chunks)"
  by (induction chunks arbitrary: s) simp_all

end

end
