(* ===== verification/Ws_Framing.thy ===== *)
theory Ws_Framing
  imports Stun Streams
begin

text \<open>
  ext/websocket_framing_utils: taking the mask off a WebSocket payload, and the incremental
  UTF-8 validator (the table and the step of \<open>ws_framing_utils.h\<close>, and the object of
  \<open>ws_framing_utils_ruby.c\<close> that carries its state from one payload to the next).
\<close>

subsection \<open>\<open>WsFramingUtils_unmask\<close>\<close>

fun unmask_loop :: "buffer \<Rightarrow> buffer \<Rightarrow> nat \<Rightarrow> nat \<Rightarrow> buffer \<Rightarrow> buffer" where
  "unmask_loop payload_str mask_str i 0 unmasked = unmasked"
| "unmask_loop payload_str mask_str i (Suc n) unmasked =
     unmask_loop payload_str mask_str (i + 1) n
       (unmasked[i := payload_str ! i XOR mask_str ! (i mod 4)])"

text \<open>The buffer \<open>ALLOC_N\<close> returns holds anything: \<open>heap n\<close> are its \<open>n\<close> bytes.\<close>

definition WsFramingUtils_unmask :: "(nat \<Rightarrow> buffer) \<Rightarrow> ruby_value \<Rightarrow> ruby_value \<Rightarrow> outcome" where
  "WsFramingUtils_unmask heap payload rb_mask =
     (case payload of
        Str p \<Rightarrow>
          (case rb_mask of
             Str m \<Rightarrow>
               if length m \<noteq> 4 then Inl TypeError
               else Inr (Str (map byte_char
                      (unmask_loop (map char_byte p) (map char_byte m) 0 (length p) (heap (length p)))))
           | _ \<Rightarrow> Inl TypeError)
      | _ \<Rightarrow> Inl TypeError)"

lemma unmask_loop_eq:
  "i + n \<le> length x \<Longrightarrow>
    unmask_loop p m i n x = take i x @ map (\<lambda>j. p ! j XOR m ! (j mod 4)) [i..<i + n] @ drop (i + n) x"
proof (induction n arbitrary: i x)
  case (Suc n)
  have "[i..<i + Suc n] = i # [Suc i..<Suc i + n]" by (simp add: upt_conv_Cons)
  moreover have "take (Suc i) (x[i := v]) = take i x @ [v]" for v
    using Suc.prems by (simp add: take_Suc_conv_app_nth)
  ultimately show ?case
    using Suc.IH [of "Suc i" "x[i := p ! i XOR m ! (i mod 4)]"] Suc.prems
    by (simp add: drop_update_cancel)
qed simp

lemma byte_char_char_byte [simp]: "byte_char (char_byte c) = c"
proof -
  have "(of_char c :: nat) < 256" by simp
  then have "unat (char_byte c) = of_char c" by (simp add: char_byte_def unat_of_nat)
  then show ?thesis by (simp add: byte_char_def)
qed

definition masked :: "string \<Rightarrow> string \<Rightarrow> string" where
  "masked m p = map (\<lambda>i. byte_char (char_byte (p ! i) XOR char_byte (m ! (i mod 4)))) [0..<length p]"

lemma unmask_masked:
  assumes "\<And>n. length (heap n) = n" and "length m = 4"
  shows "WsFramingUtils_unmask heap (Str p) (Str m) = Inr (Str (masked m p))"
proof -
  have "unmask_loop (map char_byte p) (map char_byte m) 0 (length p) (heap (length p)) =
    map (\<lambda>j. map char_byte p ! j XOR map char_byte m ! (j mod 4)) [0..<length p]"
    using assms(1) by (subst unmask_loop_eq) simp_all
  also have "\<dots> = map (\<lambda>j. char_byte (p ! j) XOR char_byte (m ! (j mod 4))) [0..<length p]"
    using assms(2) by (intro map_cong) simp_all
  finally show ?thesis
    using assms(2) by (simp add: WsFramingUtils_unmask_def masked_def comp_def)
qed

lemma masked_masked: "masked m (masked m p) = p"
  by (rule nth_equalityI) (simp_all add: masked_def xor_cancel)

text \<open>
  Unmasking writes every byte of its result: byte \<open>i\<close> is the exclusive or of byte \<open>i\<close> of the
  payload with byte \<open>i mod 4\<close> of the mask; and unmasking twice gives the payload back.
\<close>

theorem WsFramingUtils_unmask_involution:
  assumes "\<And>n. length (heap n) = n" and "length m = 4"
  shows "\<exists>u. WsFramingUtils_unmask heap (Str p) (Str m) = Inr (Str u) \<and> length u = length p \<and>
    map char_byte u = map (\<lambda>i. char_byte (p ! i) XOR char_byte (m ! (i mod 4))) [0..<length p] \<and>
    WsFramingUtils_unmask heap (Str u) (Str m) = Inr (Str p)"
proof (intro exI conjI)
  show "WsFramingUtils_unmask heap (Str p) (Str m) = Inr (Str (masked m p))"
    by (rule unmask_masked [OF assms])
  show "WsFramingUtils_unmask heap (Str (masked m p)) (Str m) = Inr (Str p)"
    by (simp add: unmask_masked [OF assms] masked_masked)
qed (simp_all add: masked_def)

theorem WsFramingUtils_unmask_involution_witness:
  "\<exists>u. WsFramingUtils_unmask (\<lambda>n. replicate n 7) (Str ''hello'') (Str ''mask'') = Inr (Str u) \<and>
    length u = length ''hello'' \<and>
    map char_byte u =
      map (\<lambda>i. char_byte (''hello'' ! i) XOR char_byte (''mask'' ! (i mod 4))) [0..<length ''hello''] \<and>
    WsFramingUtils_unmask (\<lambda>n. replicate n 7) (Str u) (Str ''mask'') = Inr (Str ''hello'')"
  by (rule WsFramingUtils_unmask_involution) simp_all

subsection \<open>The decoder\<close>

definition utf8d :: "nat list" where
  "utf8d =
    [0, 0, 0, 0, 0, 0, 0, 0, 0, 0, 0, 0, 0, 0, 0, 0, 0, 0, 0, 0, 0, 0, 0, 0, 0, 0, 0, 0, 0, 0, 0, 0,
     0, 0, 0, 0, 0, 0, 0, 0, 0, 0, 0, 0, 0, 0, 0, 0, 0, 0, 0, 0, 0, 0, 0, 0, 0, 0, 0, 0, 0, 0, 0, 0,
     0, 0, 0, 0, 0, 0, 0, 0, 0, 0, 0, 0, 0, 0, 0, 0, 0, 0, 0, 0, 0, 0, 0, 0, 0, 0, 0, 0, 0, 0, 0, 0,
     0, 0, 0, 0, 0, 0, 0, 0, 0, 0, 0, 0, 0, 0, 0, 0, 0, 0, 0, 0, 0, 0, 0, 0, 0, 0, 0, 0, 0, 0, 0, 0,
     1, 1, 1, 1, 1, 1, 1, 1, 1, 1, 1, 1, 1, 1, 1, 1, 9, 9, 9, 9, 9, 9, 9, 9, 9, 9, 9, 9, 9, 9, 9, 9,
     7, 7, 7, 7, 7, 7, 7, 7, 7, 7, 7, 7, 7, 7, 7, 7, 7, 7, 7, 7, 7, 7, 7, 7, 7, 7, 7, 7, 7, 7, 7, 7,
     8, 8, 2, 2, 2, 2, 2, 2, 2, 2, 2, 2, 2, 2, 2, 2, 2, 2, 2, 2, 2, 2, 2, 2, 2, 2, 2, 2, 2, 2, 2, 2,
     10, 3, 3, 3, 3, 3, 3, 3, 3, 3, 3, 3, 3, 4, 3, 3,
     11, 6, 6, 6, 5, 8, 8, 8, 8, 8, 8, 8, 8, 8, 8, 8,
     0, 1, 2, 3, 5, 8, 7, 1, 1, 1, 4, 6, 1, 1, 1, 1,
     1, 1, 1, 1, 1, 1, 1, 1, 1, 1, 1, 1, 1, 1, 1, 1, 1, 0, 1, 1, 1, 1, 1, 0, 1, 0, 1, 1, 1, 1, 1, 1,
     1, 2, 1, 1, 1, 1, 1, 2, 1, 2, 1, 1, 1, 1, 1, 1, 1, 1, 1, 1, 1, 1, 1, 2, 1, 1, 1, 1, 1, 1, 1, 1,
     1, 2, 1, 1, 1, 1, 1, 1, 1, 2, 1, 1, 1, 1, 1, 1, 1, 1, 1, 1, 1, 1, 1, 3, 1, 3, 1, 1, 1, 1, 1, 1,
     1, 3, 1, 1, 1, 1, 1, 3, 1, 3, 1, 1, 1, 1, 1, 1, 1, 3, 1, 1, 1, 1, 1, 1, 1, 1, 1, 1, 1, 1, 1, 1]"

definition UTF8_ACCEPT :: nat where "UTF8_ACCEPT = 0"

definition UTF8_REJECT :: nat where "UTF8_REJECT = 1"

record utf8_validator =
  codepoint :: "32 word"
  state :: nat

text \<open>
  One byte: the new state and code point.  States are table values, at most 8, so the index
  \<open>256 + state * 16 + type\<close> stays below 400 and does not wrap around.
\<close>

definition utf8_decode :: "utf8_validator \<Rightarrow> byte \<Rightarrow> utf8_validator" where
  "utf8_decode v b =
     (let type = utf8d ! unat b;
          codep = (if state v \<noteq> UTF8_ACCEPT
                   then (ucast b AND 0x3f) OR push_bit 6 (codepoint v)
                   else drop_bit type 0xff AND ucast b)
      in \<lparr>codepoint = codep, state = utf8d ! (256 + state v * 16 + type)\<rparr>)"

subsection \<open>The validator object\<close>

text \<open>\<open>ALLOC\<close> leaves \<open>codepoint\<close> as it finds it.\<close>

definition Utf8Validator_alloc :: "32 word \<Rightarrow> utf8_validator" where
  "Utf8Validator_alloc junk = \<lparr>codepoint = junk, state = UTF8_ACCEPT\<rparr>"

definition Utf8Validator_reset :: "utf8_validator \<Rightarrow> utf8_validator \<times> ruby_value" where
  "Utf8Validator_reset v = (v\<lparr>state := UTF8_ACCEPT\<rparr>, Qnil)"

fun utf8_validate_loop :: "utf8_validator \<Rightarrow> buffer \<Rightarrow> utf8_validator \<times> bool" where
  "utf8_validate_loop v [] = (v, False)"
| "utf8_validate_loop v (b # bs) =
     (let v' = utf8_decode v b
      in if state v' = UTF8_REJECT then (v', True) else utf8_validate_loop v' bs)"

definition Utf8Validator_validate :: "utf8_validator \<Rightarrow> ruby_value \<Rightarrow> utf8_validator \<times> outcome" where
  "Utf8Validator_validate v string =
     (case string of
        Str s \<Rightarrow>
          (case utf8_validate_loop v (map char_byte s) of
             (v', rejected) \<Rightarrow>
               if rejected then (v', Inr Qfalse)
               else if state v' = UTF8_ACCEPT then (v', Inr Qtrue)
               else (v', Inr Qnil))
      | _ \<Rightarrow> (v, Inl TypeError))"

subsection \<open>The automaton of RFC 3629\<close>

text \<open>
  The states of the table: 0 between characters, 1 after a byte no character continues with,
  and seven states inside a character.
\<close>

definition byte_class :: "nat \<Rightarrow> nat" where
  "byte_class b =
     (if b < 0x80 then 0 else if b < 0x90 then 1 else if b < 0xA0 then 9 else if b < 0xC0 then 7
      else if b < 0xC2 then 8 else if b < 0xE0 then 2 else if b = 0xE0 then 10 else if b = 0xED then 4
      else if b < 0xF0 then 3 else if b = 0xF0 then 11 else if b < 0xF4 then 6 else if b = 0xF4 then 5
      else 8)"

definition utf8_step :: "nat \<Rightarrow> nat \<Rightarrow> nat" where
  "utf8_step s b =
     (if s = 0 then
        (if b < 0x80 then 0 else if b < 0xC2 then 1 else if b < 0xE0 then 2 else if b = 0xE0 then 4
         else if b = 0xED then 5 else if b < 0xF0 then 3 else if b = 0xF0 then 6 else if b < 0xF4 then 7
         else if b = 0xF4 then 8 else 1)
      else if s = 2 then (if 0x80 \<le> b \<and> b < 0xC0 then 0 else 1)
      else if s = 3 then (if 0x80 \<le> b \<and> b < 0xC0 then 2 else 1)
      else if s = 4 then (if 0xA0 \<le> b \<and> b < 0xC0 then 2 else 1)
      else if s = 5 then (if 0x80 \<le> b \<and> b < 0xA0 then 2 else 1)
      else if s = 6 then (if 0x90 \<le> b \<and> b < 0xC0 then 3 else 1)
      else if s = 7 then (if 0x80 \<le> b \<and> b < 0xC0 then 3 else 1)
      else if s = 8 then (if 0x80 \<le> b \<and> b < 0x90 then 3 else 1)
      else 1)"

lemma utf8d_classes: "take 256 utf8d = map byte_class [0..<256]"
  by code_simp

text \<open>The row of a state: its next state for each class of bytes.\<close>

definition utf8_row :: "nat \<Rightarrow> nat list" where
  "utf8_row s =
     (if s = 0 then [0, 1, 2, 3, 5, 8, 7, 1, 1, 1, 4, 6, 1, 1, 1, 1] else
      if s = 1 then [1, 1, 1, 1, 1, 1, 1, 1, 1, 1, 1, 1, 1, 1, 1, 1] else
      if s = 2 then [1, 0, 1, 1, 1, 1, 1, 0, 1, 0, 1, 1, 1, 1, 1, 1] else
      if s = 3 then [1, 2, 1, 1, 1, 1, 1, 2, 1, 2, 1, 1, 1, 1, 1, 1] else
      if s = 4 then [1, 1, 1, 1, 1, 1, 1, 2, 1, 1, 1, 1, 1, 1, 1, 1] else
      if s = 5 then [1, 2, 1, 1, 1, 1, 1, 1, 1, 2, 1, 1, 1, 1, 1, 1] else
      if s = 6 then [1, 1, 1, 1, 1, 1, 1, 3, 1, 3, 1, 1, 1, 1, 1, 1] else
      if s = 7 then [1, 3, 1, 1, 1, 1, 1, 3, 1, 3, 1, 1, 1, 1, 1, 1] else
      [1, 3, 1, 1, 1, 1, 1, 1, 1, 1, 1, 1, 1, 1, 1, 1])"

lemma utf8d_rows: "drop 256 utf8d = concat (map utf8_row [0, 1, 2, 3, 4, 5, 6, 7, 8])"
  by (simp add: utf8d_def utf8_row_def)

lemma utf8_row_step: "s \<le> 8 \<Longrightarrow> utf8_row s ! byte_class b = utf8_step s b"
proof -
  assume "s \<le> 8"
  then have "s = 0 \<or> s = 1 \<or> s = 2 \<or> s = 3 \<or> s = 4 \<or> s = 5 \<or> s = 6 \<or> s = 7 \<or> s = 8" by linarith
  then show ?thesis
    by (elim disjE) (simp_all add: utf8_row_def utf8_step_def byte_class_def)
qed

lemma nth_concat_rows:
  "\<forall>r \<in> set rs. length r = n \<Longrightarrow> k < length rs \<Longrightarrow> i < n \<Longrightarrow> concat rs ! (k * n + i) = rs ! k ! i"
proof (induction rs arbitrary: k)
  case (Cons r rs)
  then show ?case by (cases k) (simp_all add: nth_append add.assoc)
qed simp

lemma utf8d_class: "utf8d ! unat (b :: byte) = byte_class (unat b)"
proof -
  have b: "unat b < 256" using unsigned_less [of b] by simp
  then have "utf8d ! unat b = take 256 utf8d ! unat b" by simp
  also have "\<dots> = byte_class (unat b)" using b unfolding utf8d_classes by simp
  finally show ?thesis .
qed

lemma length_utf8d: "length utf8d = 400"
  by (simp add: utf8d_def)

lemma utf8d_next:
  assumes "s \<le> 8"
  shows "utf8d ! (256 + s * 16 + byte_class b) = utf8_step s b"
proof -
  have "utf8d ! (256 + s * 16 + byte_class b) = drop 256 utf8d ! (s * 16 + byte_class b)"
    by (simp add: length_utf8d add.assoc)
  also have "\<dots> = map utf8_row [0, 1, 2, 3, 4, 5, 6, 7, 8] ! s ! byte_class b"
    unfolding utf8d_rows
    by (rule nth_concat_rows) (use assms in \<open>auto simp: utf8_row_def byte_class_def\<close>)
  also have "map utf8_row [0, 1, 2, 3, 4, 5, 6, 7, 8] ! s = utf8_row s"
  proof -
    have "s = 0 \<or> s = 1 \<or> s = 2 \<or> s = 3 \<or> s = 4 \<or> s = 5 \<or> s = 6 \<or> s = 7 \<or> s = 8"
      using assms by linarith
    then show ?thesis by (elim disjE) simp_all
  qed
  also have "utf8_row s ! byte_class b = utf8_step s b" by (rule utf8_row_step [OF assms])
  finally show ?thesis .
qed

lemma utf8_step_le: "utf8_step s b \<le> 8"
  by (simp add: utf8_step_def)

lemma state_utf8_decode: "state v \<le> 8 \<Longrightarrow> state (utf8_decode v b) = utf8_step (state v) (unat b)"
  by (simp add: utf8_decode_def Let_def utf8d_class utf8d_next)

subsection \<open>Text in UTF-8\<close>

definition scalar_value :: "nat \<Rightarrow> bool" where
  "scalar_value cp \<longleftrightarrow> cp < 0x110000 \<and> \<not> (0xD800 \<le> cp \<and> cp < 0xE000)"

definition utf8_encode :: "nat \<Rightarrow> nat list" where
  "utf8_encode cp =
     (if cp < 0x80 then [cp]
      else if cp < 0x800 then [0xC0 + cp div 64, 0x80 + cp mod 64]
      else if cp < 0x10000 then [0xE0 + cp div 4096, 0x80 + cp div 64 mod 64, 0x80 + cp mod 64]
      else [0xF0 + cp div 262144, 0x80 + cp div 4096 mod 64, 0x80 + cp div 64 mod 64, 0x80 + cp mod 64])"

definition utf8_text :: "nat list \<Rightarrow> bool" where
  "utf8_text bs \<longleftrightarrow> (\<exists>cps. list_all scalar_value cps \<and> bs = concat (map utf8_encode cps))"

abbreviation utf8_run :: "nat \<Rightarrow> nat list \<Rightarrow> nat" where
  "utf8_run \<equiv> foldl utf8_step"

lemma utf8_step_1 [simp]: "utf8_step 1 b = 1" "utf8_step (Suc 0) b = Suc 0"
  by (simp_all add: utf8_step_def)

lemma utf8_run_1 [simp]: "utf8_run 1 bs = 1" "utf8_run (Suc 0) bs = Suc 0"
  by (induction bs) simp_all

text \<open>The bytes of a code point, by the number of them.\<close>

lemma utf8_run_encode:
  assumes "scalar_value cp"
  shows "utf8_run 0 (utf8_encode cp) = 0"
proof -
  consider "cp < 0x80" | "0x80 \<le> cp" "cp < 0x800" | "0x800 \<le> cp" "cp < 0x10000" | "0x10000 \<le> cp"
    by linarith
  then show ?thesis
  proof cases
    case 1
    then show ?thesis by (simp add: utf8_encode_def utf8_step_def)
  next
    case 2
    then have "2 \<le> cp div 64" "cp div 64 < 32" by (simp_all add: div_less_iff_less_mult less_eq_div_iff_mult_less_eq)
    with 2 show ?thesis by (simp add: utf8_encode_def utf8_step_def)
  next
    case 3
    let ?q = "cp div 64" and ?h = "cp div 4096"
    have h: "?h = ?q div 64" by (simp add: div_mult2_eq [symmetric])
    have q: "32 \<le> ?q" "?q < 1024"
      using 3 by (simp_all add: div_less_iff_less_mult less_eq_div_iff_mult_less_eq)
    have sur: "\<not> (864 \<le> ?q \<and> ?q < 896)"
      using assms 3 by (auto simp: scalar_value_def div_less_iff_less_mult less_eq_div_iff_mult_less_eq)
    have e: "?q = 64 * (?q div 64) + ?q mod 64" by simp
    define x y where xy: "x = ?q div 64" "y = ?q mod 64"
    have x: "?q = 64 * x + y" "y < 64" "x < 16" using q by (simp_all add: xy div_less_iff_less_mult)
    have d: "(x = 0 \<longrightarrow> 32 \<le> y) \<and> (x = 13 \<longrightarrow> y < 32)"
      using q sur x by auto
    show ?thesis using 3 x(2,3) d by (auto simp: utf8_encode_def utf8_step_def h xy [symmetric])
  next
    case 4
    let ?q = "cp div 4096" and ?h = "cp div 262144"
    have h: "?h = ?q div 64" by (simp add: div_mult2_eq [symmetric])
    have q: "16 \<le> ?q" "?q < 272"
      using 4 assms by (auto simp: scalar_value_def div_less_iff_less_mult less_eq_div_iff_mult_less_eq)
    define x y where xy: "x = ?q div 64" "y = ?q mod 64"
    have x: "?q = 64 * x + y" "y < 64" by (simp_all add: xy)
    have d: "x \<le> 4 \<and> (x = 0 \<longrightarrow> 16 \<le> y) \<and> (x = 4 \<longrightarrow> y < 16)"
      using q x by auto
    show ?thesis using 4 x(2) d by (auto simp: utf8_encode_def utf8_step_def h xy [symmetric])
  qed
qed

lemma div_mod_64: "z < 64 \<Longrightarrow> (64 * k + z) div 64 = k \<and> (64 * k + z) mod 64 = (z :: nat)"
  by simp

lemma utf8_encode_3:
  "0x800 \<le> cp \<Longrightarrow> cp < 0x10000 \<Longrightarrow>
    utf8_encode cp = [0xE0 + cp div 4096, 0x80 + cp div 64 mod 64, 0x80 + cp mod 64]"
  by (simp add: utf8_encode_def)

lemma utf8_encode_4:
  "0x10000 \<le> cp \<Longrightarrow>
    utf8_encode cp =
      [0xF0 + cp div 262144, 0x80 + cp div 4096 mod 64, 0x80 + cp div 64 mod 64, 0x80 + cp mod 64]"
  by (simp add: utf8_encode_def)

text \<open>Inside a character only one byte leads on.\<close>

lemma utf8_run_inside:
  assumes "utf8_run s bs = 0" and "2 \<le> s" and "s \<le> 8"
  obtains c r where "bs = c # r" "0x80 \<le> c" "c < 0xC0"
    "utf8_run (if s = 2 then 0 else if s \<le> 5 then 2 else 3) r = 0"
    "s = 4 \<longrightarrow> 0xA0 \<le> c" "s = 5 \<longrightarrow> c < 0xA0" "s = 6 \<longrightarrow> 0x90 \<le> c" "s = 8 \<longrightarrow> c < 0x90"
proof -
  obtain c r where b: "bs = c # r" using assms(1,2) by (cases bs) auto
  have r: "utf8_run (utf8_step s c) r = 0" using assms(1) by (simp add: b)
  have s: "s = 2 \<or> s = 3 \<or> s = 4 \<or> s = 5 \<or> s = 6 \<or> s = 7 \<or> s = 8" using assms(2,3) by linarith
  have "utf8_step s c \<noteq> 1" using r by auto
  then have "0x80 \<le> c \<and> c < 0xC0 \<and> utf8_step s c = (if s = 2 then 0 else if s \<le> 5 then 2 else 3) \<and>
    (s = 4 \<longrightarrow> 0xA0 \<le> c) \<and> (s = 5 \<longrightarrow> c < 0xA0) \<and> (s = 6 \<longrightarrow> 0x90 \<le> c) \<and> (s = 8 \<longrightarrow> c < 0x90)"
    using s by (elim disjE) (simp_all add: utf8_step_def split: if_splits)
  with that [OF b] r show thesis by simp
qed

text \<open>A byte that keeps the automaton off the reject state starts a code point or continues one.\<close>

lemma utf8_first_char:
  assumes "utf8_run 0 bs = 0" and "bs \<noteq> []"
  obtains cp r where "scalar_value cp" "bs = utf8_encode cp @ r" "utf8_run 0 r = 0"
proof -
  obtain b r where b: "bs = b # r" using assms(2) by (cases bs) auto
  consider "b < 0x80" | "0xC2 \<le> b" "b < 0xE0" | "0xE0 \<le> b" "b < 0xF0" | "0xF0 \<le> b" "b \<le> 0xF4"
    using assms(1) unfolding b by (fastforce simp: utf8_step_def split: if_splits)
  then show thesis
  proof cases
    case 1
    with assms(1) b show thesis
      by (intro that [of b r]) (simp_all add: scalar_value_def utf8_encode_def utf8_step_def)
  next
    case 2
    with assms(1) obtain c r' where c: "r = c # r'" by (cases r) (auto simp: b utf8_step_def)
    have t: "0x80 \<le> c" "c < 0xC0" "utf8_run 0 r' = 0"
      using assms(1) 2 unfolding b c by (auto simp: utf8_step_def split: if_splits)
    define x y where xy: "x = b - 0xC0" "y = c - 0x80"
    have bc: "b = 0xC0 + x" "c = 0x80 + y" "2 \<le> x" "x < 32" "y < 64" using 2 t by (simp_all add: xy)
    show thesis
      using bc t(3)
      by (intro that [of "64 * x + y" r']) (simp_all add: b c scalar_value_def utf8_encode_def)
  next
    case 3
    let ?s = "if b = 0xE0 then 4 else if b = 0xED then 5 else 3 :: nat"
    have "utf8_step 0 b = ?s" using 3 by (simp add: utf8_step_def)
    then have "utf8_run ?s r = 0" using assms(1) by (simp add: b)
    then obtain c r' where c: "r = c # r'" "0x80 \<le> c" "c < 0xC0" "utf8_run 2 r' = 0"
      "b = 0xE0 \<Longrightarrow> 0xA0 \<le> c" "b = 0xED \<Longrightarrow> c < 0xA0"
      by (rule utf8_run_inside) (simp_all split: if_splits)
    from c(4) obtain d r'' where d: "r' = d # r''" "0x80 \<le> d" "d < 0xC0" "utf8_run 0 r'' = 0"
      by (rule utf8_run_inside) simp_all
    note t = c(2,3,5,6) d(2-4)
    define x y z where xyz: "x = b - 0xE0" "y = c - 0x80" "z = d - 0x80"
    have e: "b = 0xE0 + x" "c = 0x80 + y" "d = 0x80 + z" "x < 16" "y < 64" "z < 64"
      "x = 0 \<Longrightarrow> 32 \<le> y" "x = 13 \<Longrightarrow> y < 32"
    proof -
      show "32 \<le> y" if "x = 0"
      proof -
        have "b = 0xE0" using that 3 xyz(1) by linarith
        from t(3) [OF this] show ?thesis using xyz(2) by linarith
      qed
      show "y < 32" if "x = 13"
      proof -
        have "b = 0xED" using that 3 xyz(1) by linarith
        from t(4) [OF this] show ?thesis using xyz(2) by linarith
      qed
    qed (use 3 t(1,2,5,6) in \<open>simp_all add: xyz\<close>)
    let ?cp = "64 * (64 * x + y) + z"
    have dv: "?cp div 64 = 64 * x + y" "?cp mod 64 = z" "?cp div 4096 = x"
      using div_mod_64 [OF e(6), of "64 * x + y"] div_mod_64 [OF e(5), of x]
      by (simp_all only: div_mult2_eq [of _ 64 64, simplified])
    have rng: "0x800 \<le> ?cp" "?cp < 0x10000" "\<not> (0xD800 \<le> ?cp \<and> ?cp < 0xE000)"
    proof -
      show "0x800 \<le> ?cp" using e(7) by (cases "x = 0") auto
      have cp: "?cp = 4096 * x + 64 * y + z" by simp
      have "x \<le> 15" "y \<le> 63" "z \<le> 63" using e(4-6) by simp_all
      then show "?cp < 0x10000" unfolding cp by linarith
      show "\<not> (0xD800 \<le> ?cp \<and> ?cp < 0xE000)"
      proof
        assume "0xD800 \<le> ?cp \<and> ?cp < 0xE000"
        then have l: "0xD800 \<le> 4096 * x + 64 * y + z" "4096 * x + 64 * y + z < 0xE000"
          unfolding cp by simp_all
        have "y \<le> 63" "z \<le> 63" using e(5,6) by simp_all
        with l have "13 \<le> x" "x \<le> 13" by linarith+
        then have "x = 13" by simp
        moreover from this have "32 \<le> y" using l(1) e(6) by linarith
        ultimately have "x = 13 \<and> 32 \<le> y" by simp
        with e(8) show False by simp
      qed
    qed
    have "utf8_encode ?cp = [b, c, d]"
      by (simp only: utf8_encode_3 [OF rng(1,2)] dv e(1-3) div_mod_64 [OF e(5)])
    moreover have "scalar_value ?cp" using rng by (simp add: scalar_value_def)
    ultimately show thesis using t(7) that [of ?cp r''] by (simp add: b c d)
  next
    case 4
    let ?s = "if b = 0xF0 then 6 else if b = 0xF4 then 8 else 7 :: nat"
    have "utf8_step 0 b = ?s" using 4 by (simp add: utf8_step_def)
    then have "utf8_run ?s r = 0" using assms(1) by (simp add: b)
    then obtain c r' where c: "r = c # r'" "0x80 \<le> c" "c < 0xC0" "utf8_run 3 r' = 0"
      "b = 0xF0 \<Longrightarrow> 0x90 \<le> c" "b = 0xF4 \<Longrightarrow> c < 0x90"
      by (rule utf8_run_inside) (simp_all split: if_splits)
    from c(4) obtain d r'' where d: "r' = d # r''" "0x80 \<le> d" "d < 0xC0" "utf8_run 2 r'' = 0"
      by (rule utf8_run_inside) simp_all
    from d(4) obtain f q where f: "r'' = f # q" "0x80 \<le> f" "f < 0xC0" "utf8_run 0 q = 0"
      by (rule utf8_run_inside) simp_all
    note t = c(2,3,5,6) d(2,3) f(2-4)
    define w x y z where wxyz: "w = b - 0xF0" "x = c - 0x80" "y = d - 0x80" "z = f - 0x80"
    have e: "b = 0xF0 + w" "c = 0x80 + x" "d = 0x80 + y" "f = 0x80 + z" "w \<le> 4" "x < 64" "y < 64" "z < 64"
      "w = 0 \<Longrightarrow> 16 \<le> x" "w = 4 \<Longrightarrow> x < 16"
    proof -
      show "16 \<le> x" if "w = 0"
      proof -
        have "b = 0xF0" using that 4 wxyz(1) by linarith
        from t(3) [OF this] show ?thesis using wxyz(2) by linarith
      qed
      show "x < 16" if "w = 4"
      proof -
        have "b = 0xF4" using that 4 wxyz(1) by linarith
        from t(4) [OF this] show ?thesis using wxyz(2) by linarith
      qed
    qed (use 4 t(1,2,5-8) in \<open>simp_all add: wxyz\<close>)
    let ?cp = "64 * (64 * (64 * w + x) + y) + z"
    have dv: "?cp div 64 = 64 * (64 * w + x) + y" "?cp mod 64 = z" "?cp div 4096 = 64 * w + x"
      "?cp div 262144 = w"
      using div_mod_64 [OF e(8), of "64 * (64 * w + x) + y"] div_mod_64 [OF e(7), of "64 * w + x"]
        div_mod_64 [OF e(6), of w]
      by (simp_all only: div_mult2_eq [of _ 64 64, simplified] div_mult2_eq [of _ 4096 64, simplified])
    have rng: "0x10000 \<le> ?cp" "?cp < 0x110000"
    proof -
      show "0x10000 \<le> ?cp" using e(9) by (cases "w = 0") auto
      have cp: "?cp = 262144 * w + 4096 * x + 64 * y + z" by simp
      have b: "y \<le> 63" "z \<le> 63" "x \<le> 63" using e(6-8) by simp_all
      show "?cp < 0x110000"
      proof (cases "w = 4")
        case True
        with e(10) have "x \<le> 15" by simp
        with True b show ?thesis unfolding cp by linarith
      next
        case False
        with e(5) have "w \<le> 3" by simp
        with b show ?thesis unfolding cp by linarith
      qed
    qed
    have "utf8_encode ?cp = [b, c, d, f]"
      by (simp only: utf8_encode_4 [OF rng(1)] dv e(1-4) div_mod_64 [OF e(6)] div_mod_64 [OF e(7)])
    moreover have "scalar_value ?cp" using rng by (simp add: scalar_value_def)
    ultimately show thesis using t(9) that [of ?cp q] by (simp add: b c d f)
  qed
qed

lemma utf8_text_iff: "utf8_text bs \<longleftrightarrow> utf8_run 0 bs = 0"
proof
  assume "utf8_text bs"
  then obtain cps where c: "list_all scalar_value cps" "bs = concat (map utf8_encode cps)"
    by (auto simp: utf8_text_def)
  from c(1) have "utf8_run 0 (concat (map utf8_encode cps)) = 0"
    by (induction cps) (simp_all add: utf8_run_encode)
  then show "utf8_run 0 bs = 0" by (simp add: c(2))
next
  assume "utf8_run 0 bs = 0"
  then show "utf8_text bs"
  proof (induction "length bs" arbitrary: bs rule: less_induct)
    case less
    show ?case
    proof (cases "bs = []")
      case True
      then show ?thesis by (auto simp: utf8_text_def intro: exI [of _ "[]"])
    next
      case False
      obtain cp r where c: "scalar_value cp" "bs = utf8_encode cp @ r" "utf8_run 0 r = 0"
        by (rule utf8_first_char [OF less.prems False])
      have "utf8_encode cp \<noteq> []" by (simp add: utf8_encode_def)
      with c(2) have "length r < length bs" by simp
      from less.hyps [OF this c(3)] obtain cps
        where "list_all scalar_value cps" "r = concat (map utf8_encode cps)"
        by (auto simp: utf8_text_def)
      with c(1,2) have "list_all scalar_value (cp # cps) \<and> bs = concat (map utf8_encode (cp # cps))"
        by simp
      then show ?thesis unfolding utf8_text_def by blast
    qed
  qed
qed

text \<open>From every state inside a character, some bytes complete the character.\<close>

definition utf8_completion :: "nat \<Rightarrow> nat list" where
  "utf8_completion s =
     (if s = 0 then [] else if s = 2 then [0x80] else if s = 3 then [0x80, 0x80]
      else if s = 4 then [0xA0, 0x80] else if s = 5 then [0x80, 0x80]
      else if s = 6 then [0x90, 0x80, 0x80] else [0x80, 0x80, 0x80])"

lemma utf8_completion:
  assumes "s \<le> 8" and "s \<noteq> 1"
  shows "utf8_run s (utf8_completion s) = 0"
proof -
  have "s = 0 \<or> s = 2 \<or> s = 3 \<or> s = 4 \<or> s = 5 \<or> s = 6 \<or> s = 7 \<or> s = 8"
    using assms by linarith
  then show ?thesis by (elim disjE) (simp_all add: utf8_completion_def utf8_step_def)
qed

lemma utf8_run_le: "s \<le> 8 \<Longrightarrow> utf8_run s bs \<le> 8"
  by (induction bs arbitrary: s) (simp_all add: utf8_step_le)

lemma utf8_prefix_iff: "utf8_run 0 bs \<noteq> 1 \<longleftrightarrow> (\<exists>w. utf8_text (bs @ w))"
proof
  assume "utf8_run 0 bs \<noteq> 1"
  then have "utf8_run 0 (bs @ utf8_completion (utf8_run 0 bs)) = 0"
    by (simp add: utf8_completion utf8_run_le)
  then show "\<exists>w. utf8_text (bs @ w)" unfolding utf8_text_iff by blast
next
  assume "\<exists>w. utf8_text (bs @ w)"
  then obtain w where "utf8_run (utf8_run 0 bs) w = 0" by (auto simp: utf8_text_iff)
  then show "utf8_run 0 bs \<noteq> 1" by auto
qed

subsection \<open>The validator over several payloads\<close>

interpretation utf8: absorbing_scanner utf8_step 1
  by unfold_locales simp

definition unsigned_bytes :: "string \<Rightarrow> nat list" where
  "unsigned_bytes s = map (\<lambda>c. unat (char_byte c)) s"

lemma utf8_validate_loop_state:
  assumes "state v \<le> 8"
  shows "state (fst (utf8_validate_loop v bs)) = utf8_run (state v) (map unat bs)"
    "snd (utf8_validate_loop v bs) \<longleftrightarrow> bs \<noteq> [] \<and> utf8_run (state v) (map unat bs) = 1"
proof -
  have "state (fst (utf8_validate_loop v bs)) = utf8_run (state v) (map unat bs) \<and>
    (snd (utf8_validate_loop v bs) \<longleftrightarrow> bs \<noteq> [] \<and> utf8_run (state v) (map unat bs) = 1)"
    using assms
  proof (induction bs arbitrary: v)
    case (Cons b bs)
    have st: "state (utf8_decode v b) = utf8_step (state v) (unat b)"
      by (rule state_utf8_decode [OF Cons.prems])
    have le: "state (utf8_decode v b) \<le> 8" unfolding st by (rule utf8_step_le)
    show ?case
    proof (cases "state (utf8_decode v b) = 1")
      case True
      then have "utf8_step (state v) (unat b) = 1" using st by simp
      with True show ?thesis by (simp add: UTF8_REJECT_def Let_def utf8.run_reject [simplified])
    next
      case False
      then show ?thesis
        using Cons.IH [OF le] st by (cases bs) (auto simp: UTF8_REJECT_def Let_def)
    qed
  qed simp
  then show "state (fst (utf8_validate_loop v bs)) = utf8_run (state v) (map unat bs)"
    "snd (utf8_validate_loop v bs) \<longleftrightarrow> bs \<noteq> [] \<and> utf8_run (state v) (map unat bs) = 1"
    by simp_all
qed

lemma validate_state:
  "state v \<le> 8 \<Longrightarrow>
    state (fst (Utf8Validator_validate v (Str s))) = utf8_run (state v) (unsigned_bytes s)"
proof -
  assume v: "state v \<le> 8"
  have "fst (Utf8Validator_validate v (Str s)) = fst (utf8_validate_loop v (map char_byte s))"
    by (simp add: Utf8Validator_validate_def split: prod.split)
  then show ?thesis
    using utf8_validate_loop_state(1) [OF v, of "map char_byte s"]
    by (simp add: unsigned_bytes_def comp_def)
qed

definition feed :: "utf8_validator \<Rightarrow> string list \<Rightarrow> utf8_validator" where
  "feed v chunks = foldl (\<lambda>v s. fst (Utf8Validator_validate v (Str s))) v chunks"

lemma feed_state:
  "state v \<le> 8 \<Longrightarrow> state (feed v chunks) = utf8_run (state v) (unsigned_bytes (concat chunks))"
proof -
  assume v: "state v \<le> 8"
  have "state (feed v chunks) = foldl utf8_run (state v) (map unsigned_bytes chunks)"
    using v by (induction chunks arbitrary: v) (simp_all add: feed_def validate_state utf8_run_le)
  also have "\<dots> = utf8_run (state v) (unsigned_bytes (concat chunks))"
    by (simp add: utf8.run_chunks unsigned_bytes_def [abs_def] map_concat)
  finally show ?thesis .
qed

text \<open>
  C21.  Validating a message that arrives in several payloads: fed with the payloads since it
  was created or reset, the validator answers for a further, non-empty payload true when all
  of them together are UTF-8 text, nil when they are the beginning of such a text, and false
  otherwise.  The code point an earlier use left in the object plays no part.
\<close>

theorem Utf8Validator_validate_chunks:
  assumes "s \<noteq> []" and "v = Utf8Validator_alloc junk \<or> v = fst (Utf8Validator_reset v0)"
  shows "snd (Utf8Validator_validate (feed v chunks) (Str s)) =
    (let text = unsigned_bytes (concat chunks @ s)
     in Inr (if utf8_text text then Qtrue
             else if \<exists>w. utf8_text (text @ w) then Qnil else Qfalse))"
proof -
  let ?v = "feed v chunks" and ?text = "unsigned_bytes (concat chunks @ s)"
  have z: "state v = 0"
    using assms(2) by (auto simp: Utf8Validator_alloc_def Utf8Validator_reset_def UTF8_ACCEPT_def)
  then have st: "state ?v = utf8_run 0 (unsigned_bytes (concat chunks))"
    using feed_state [of v chunks] by simp
  then have le: "state ?v \<le> 8" by (simp add: utf8_run_le)
  have r: "utf8_run (state ?v) (map unat (map char_byte s)) = utf8_run 0 ?text"
    by (simp add: st unsigned_bytes_def comp_def)
  obtain v' rej where l: "utf8_validate_loop ?v (map char_byte s) = (v', rej)"
    by (cases "utf8_validate_loop ?v (map char_byte s)")
  from utf8_validate_loop_state [OF le, of "map char_byte s"] assms(1)
  have "state v' = utf8_run 0 ?text" "rej \<longleftrightarrow> utf8_run 0 ?text = 1" unfolding l r by simp_all
  moreover have "snd (Utf8Validator_validate ?v (Str s)) =
    Inr (if rej then Qfalse else if state v' = 0 then Qtrue else Qnil)"
    by (simp add: Utf8Validator_validate_def l UTF8_ACCEPT_def)
  ultimately show ?thesis
    using utf8_text_iff [of ?text] utf8_prefix_iff [of ?text] by (auto simp: Let_def)
qed

subsection \<open>The code points\<close>

lemma word_of_unat_eq: "unat (w :: 'a::len word) = n \<Longrightarrow> w = word_of_nat n"
  by auto

lemma unat_ucast_byte: "unat (ucast (b :: byte) :: 32 word) = unat b"
proof -
  have "unat b < 256" using unsigned_less [of b] by simp
  then show ?thesis by (simp add: unsigned_ucast_eq take_bit_nat_eq_self)
qed

lemma nat_and_mask: "m AND mask k = (m :: nat) mod 2 ^ k"
  by (simp add: take_bit_eq_mask [symmetric] take_bit_eq_mod)

lemma lead_bits: "drop_bit t 0xff AND ucast b = (word_of_nat (unat (b :: byte) mod 2 ^ (8 - t)) :: 32 word)"
proof (rule word_of_unat_eq)
  have "unat (drop_bit t 0xff AND ucast b :: 32 word) = drop_bit t 0xff AND unat b"
    by (simp add: unsigned_and_eq unsigned_drop_bit_eq unat_ucast_byte)
  also have "(0xff :: nat) = mask 8" by (simp add: mask_eq_exp_minus_1)
  also have "drop_bit t (mask 8) AND unat b = unat b mod 2 ^ (8 - t)"
    by (simp add: drop_bit_mask_eq nat_and_mask and.commute)
  finally show "unat (drop_bit t 0xff AND ucast b :: 32 word) = unat b mod 2 ^ (8 - t)" .
qed

lemma low_bits: "ucast b AND 0x3f = (word_of_nat (unat (b :: byte) mod 64) :: 32 word)"
proof (rule word_of_unat_eq)
  have "unat (ucast b AND 0x3f :: 32 word) = unat b AND 0x3f"
    by (simp add: unsigned_and_eq unat_ucast_byte)
  also have "(0x3f :: nat) = mask 6" by (simp add: mask_eq_exp_minus_1)
  also have "unat b AND mask 6 = unat b mod 64" by (simp add: nat_and_mask)
  finally show "unat (ucast b AND 0x3f :: 32 word) = unat b mod 64" .
qed

lemma tail_bits:
  "(ucast b AND 0x3f) OR push_bit 6 (word_of_nat n) = (word_of_nat (64 * n + unat (b :: byte) mod 64) :: 32 word)"
proof -
  have "(0x3f :: 32 word) = mask 6" by (simp add: mask_eq_exp_minus_1)
  then have "(ucast b AND 0x3f) AND push_bit 6 (word_of_nat n) =
    (ucast b AND mask 6) AND (push_bit 6 (word_of_nat n) :: 32 word)" by (simp only:)
  also have "\<dots> = 0" by (auto simp: bit_simps intro!: bit_word_eqI)
  finally have eq: "(ucast b AND 0x3f) OR push_bit 6 (word_of_nat n) =
    ((ucast b AND 0x3f) + push_bit 6 (word_of_nat n) :: 32 word)"
    by (simp only: disjunctive_add_eq_or)
  show ?thesis unfolding eq unfolding low_bits by (simp add: push_bit_eq_mult mult.commute)
qed

definition value_step :: "nat \<times> nat \<Rightarrow> nat \<Rightarrow> nat \<times> nat" where
  "value_step = (\<lambda>(s, n) b. (utf8_step s b, if s \<noteq> 0 then 64 * n + b mod 64 else b mod 2 ^ (8 - byte_class b)))"

lemma utf8_decode_value:
  assumes "state v \<le> 8" and "state v \<noteq> 0 \<Longrightarrow> codepoint v = word_of_nat n"
  shows "utf8_decode v b =
    (case value_step (state v, n) (unat b) of (s, m) \<Rightarrow> \<lparr>codepoint = word_of_nat m, state = s\<rparr>)"
  using assms
  by (auto simp: utf8_decode_def value_step_def Let_def UTF8_ACCEPT_def utf8d_class utf8d_next
      lead_bits tail_bits simp del: word_of_nat_eq_iff)

lemma foldl_utf8_decode:
  assumes "list_all (\<lambda>b. b < 256) bs" and "bs \<noteq> []" and "state v = 0"
  shows "foldl utf8_decode v (map word_of_nat bs) =
    (case foldl value_step (0, 0) bs of (s, m) \<Rightarrow> \<lparr>codepoint = word_of_nat m, state = s\<rparr>)"
proof -
  have steps: "foldl utf8_decode \<lparr>codepoint = word_of_nat n, state = s\<rparr> (map word_of_nat bs) =
      (case foldl value_step (s, n) bs of (s, m) \<Rightarrow> \<lparr>codepoint = word_of_nat m, state = s\<rparr>)"
    if "list_all (\<lambda>b. b < 256) bs" "s \<le> 8" for s n bs
    using that
  proof (induction bs arbitrary: s n)
    case (Cons b bs)
    have "utf8_decode \<lparr>codepoint = word_of_nat n, state = s\<rparr> (word_of_nat b) =
      (case value_step (s, n) b of (s, m) \<Rightarrow> \<lparr>codepoint = word_of_nat m, state = s\<rparr>)"
      using Cons.prems utf8_decode_value [of "\<lparr>codepoint = word_of_nat n, state = s\<rparr>" n "word_of_nat b"]
      by (simp add: unat_of_nat)
    moreover obtain s' m where sm: "value_step (s, n) b = (s', m)" by (cases "value_step (s, n) b")
    moreover have "s' \<le> 8" using sm by (auto simp: value_step_def utf8_step_le)
    ultimately show ?case using Cons by simp
  qed simp
  obtain b r where b: "bs = b # r" using assms(2) by (cases bs) auto
  obtain s' m where sm: "value_step (0, 0) b = (s', m)" by (cases "value_step (0, 0) b")
  have "s' \<le> 8" using sm by (auto simp: value_step_def utf8_step_le)
  moreover have "utf8_decode v (word_of_nat b) = \<lparr>codepoint = word_of_nat m, state = s'\<rparr>"
    using assms utf8_decode_value [of v 0 "word_of_nat b"] sm by (simp add: b unat_of_nat)
  ultimately show ?thesis using assms(1) steps [of r s' m] sm by (simp add: b)
qed

text \<open>A lead byte of three or four bytes, and the byte behind it, end no character.\<close>

lemma lead_steps:
  "0xE0 \<le> b \<Longrightarrow> utf8_step 0 b \<noteq> 0"
  "0xE0 \<le> b \<Longrightarrow> utf8_step (utf8_step 0 b) c \<noteq> 0"
  "0xF0 \<le> b \<Longrightarrow> utf8_step (utf8_step (utf8_step 0 b) c) d \<noteq> 0"
  by (simp_all add: utf8_step_def)

lemma lead_values:
  "list_all (\<lambda>h. (0xE0 + h) mod 2 ^ (8 - byte_class (0xE0 + h)) = h) [0..<16]"
  "list_all (\<lambda>h. (0xF0 + h) mod 2 ^ (8 - byte_class (0xF0 + h)) = h) [0..<5]"
  by code_simp+

lemma lead_value:
  "h < 16 \<Longrightarrow> (0xE0 + h) mod 2 ^ (8 - byte_class (0xE0 + h)) = h"
  "h < 5 \<Longrightarrow> (0xF0 + h) mod 2 ^ (8 - byte_class (0xF0 + h)) = h"
  using lead_values by (simp_all only: list_all_iff set_upt) simp_all

lemma mod_64_lead: "(0xC0 + n) mod 64 = n mod (64 :: nat)" "(0x80 + n) mod 64 = n mod (64 :: nat)"
  using mod_mult_self1 [of n 3 64] mod_mult_self1 [of n 2 64] by (simp_all add: add.commute)

lemma value_run_state: "fst (foldl value_step x bs) = utf8_run (fst x) bs"
  by (induction bs arbitrary: x) (simp_all add: value_step_def split_beta)

lemma value_encode:
  assumes "scalar_value cp"
  shows "foldl value_step (0, 0) (utf8_encode cp) = (0, cp)"
proof -
  have r: "fst (foldl value_step (0, 0) (utf8_encode cp)) = 0"
    by (simp add: value_run_state utf8_run_encode [OF assms])
  have snd: "snd (foldl value_step (0, 0) (utf8_encode cp)) = cp"
  proof -
    consider "cp < 0x80" | "0x80 \<le> cp" "cp < 0x800" | "0x800 \<le> cp" "cp < 0x10000" | "0x10000 \<le> cp"
      by linarith
    then show ?thesis
    proof cases
      case 1
      then show ?thesis by (simp add: utf8_encode_def value_step_def byte_class_def)
    next
      case 2
      then have "2 \<le> cp div 64" "cp div 64 < 32" by (simp_all add: div_less_iff_less_mult less_eq_div_iff_mult_less_eq)
      with 2 show ?thesis
        by (simp add: utf8_encode_def value_step_def utf8_step_def byte_class_def mod_64_lead [simplified])
    next
      case 3
      have h: "cp div 4096 < 16" using 3 by (simp add: div_less_iff_less_mult)
      have "64 * (64 * (cp div 4096) + cp div 64 mod 64) + cp mod 64 = cp"
        by (simp add: div_mult2_eq [of cp 64 64, simplified])
      then show ?thesis
        by (simp add: utf8_encode_3 [OF 3] value_step_def lead_steps lead_value(1) [OF h, simplified]
            mod_64_lead [simplified])
    next
      case 4
      have h: "cp div 262144 < 5" using assms by (simp add: scalar_value_def div_less_iff_less_mult)
      have "64 * (64 * (64 * (cp div 262144) + cp div 4096 mod 64) + cp div 64 mod 64) + cp mod 64 = cp"
        by (simp add: div_mult2_eq [of cp 64 64, simplified] div_mult2_eq [of cp 4096 64, simplified])
      then show ?thesis
        by (simp add: utf8_encode_4 [OF 4] value_step_def lead_steps mod_64_lead [simplified]
            lead_value(2) [OF h, simplified])
    qed
  qed
  from r snd show ?thesis by (metis prod.collapse)
qed

text \<open>
  Between characters, decoding the UTF-8 form of any Unicode scalar value ends between
  characters again with exactly that value as the code point.
\<close>

theorem utf8_decode_encode:
  assumes "scalar_value cp" and "state v = UTF8_ACCEPT"
  shows "foldl utf8_decode v (map word_of_nat (utf8_encode cp)) =
    \<lparr>codepoint = word_of_nat cp, state = UTF8_ACCEPT\<rparr>"
proof -
  have "list_all (\<lambda>b. b < 256) (utf8_encode cp)" "utf8_encode cp \<noteq> []"
    using assms(1)
    by (simp_all add: utf8_encode_def scalar_value_def div_less_iff_less_mult) linarith?
  with foldl_utf8_decode [OF this] assms value_encode [OF assms(1)] show ?thesis
    by (simp add: UTF8_ACCEPT_def)
qed

theorem Utf8Validator_validate_chunks_witness:
  "snd (Utf8Validator_validate (feed (Utf8Validator_alloc 7) [''caf'', [CHR 0xC3]]) (Str [CHR 0xA9, CHR ''!''])) =
    Inr Qtrue"
proof -
  have "utf8_text (unsigned_bytes (concat [''caf'', [CHR 0xC3]] @ [CHR 0xA9, CHR ''!'']))"
    by (simp add: utf8_text_iff unsigned_bytes_def char_byte_def utf8_step_def)
  then show ?thesis
    using Utf8Validator_validate_chunks [OF _ disjI1 [OF refl], of "[CHR 0xA9, CHR ''!'']" 7
        "[''caf'', [CHR 0xC3]]"]
    by (simp only: Let_def if_True list.distinct simp_thms)
qed

theorem utf8_decode_encode_witness:
  "foldl utf8_decode (Utf8Validator_alloc 7) (map word_of_nat (utf8_encode 0x20AC)) =
    \<lparr>codepoint = 0x20AC, state = UTF8_ACCEPT\<rparr> \<and> utf8_encode 0x20AC = [0xE2, 0x82, 0xAC]"
  using utf8_decode_encode [of "0x20AC" "Utf8Validator_alloc 7"]
  by (simp add: scalar_value_def Utf8Validator_alloc_def utf8_encode_def)

end
