(* ===== verification/Header_Names.thy ===== *)
theory Header_Names
  imports C_Util Ruby_Value
begin

text \<open>
  ext/sip_parser/common_headers.h: the table of well-known header names, the table of short
  forms computed from it, and \<open>headerize\<close>, which gives every header name of a message its
  canonical form.
\<close>

record common_header_name =
  ch_len :: int
  ch_name :: string
  ch_value :: ruby_value
  ch_short_name :: char

record short_header =
  sh_abbr :: char
  sh_value :: ruby_value

definition NUM_SHORT_HEADERS :: nat where
  "NUM_SHORT_HEADERS = 20"

definition hdr :: "string \<Rightarrow> char \<Rightarrow> common_header_name" where
  "hdr N S = \<lparr>ch_len = int (length N), ch_name = N, ch_value = Qnil, ch_short_name = S\<rparr>"

definition common_headers :: "common_header_name list" where
  "common_headers =
    [hdr ''Accept'' CHR '' '',
     hdr ''Accept-Contact'' CHR ''A'',
     hdr ''Accept-Encoding'' CHR '' '',
     hdr ''Accept-Language'' CHR '' '',
     hdr ''Alert-Info'' CHR '' '',
     hdr ''Allow'' CHR '' '',
     hdr ''Allow-Events'' CHR ''U'',
     hdr ''Authentication-Info'' CHR '' '',
     hdr ''Authorization'' CHR '' '',
     hdr ''Call-ID'' CHR ''I'',
     hdr ''Call-Info'' CHR '' '',
     hdr ''Contact'' CHR ''M'',
     hdr ''Content-Disposition'' CHR '' '',
     hdr ''Content-Encoding'' CHR ''E'',
     hdr ''Content-Language'' CHR '' '',
     hdr ''Content-Length'' CHR ''L'',
     hdr ''Content-Type'' CHR ''C'',
     hdr ''CSeq'' CHR '' '',
     hdr ''Date'' CHR '' '',
     hdr ''Event'' CHR ''O'',
     hdr ''Error-Info'' CHR '' '',
     hdr ''Expires'' CHR '' '',
     hdr ''From'' CHR ''F'',
     hdr ''Identity'' CHR ''Y'',
     hdr ''Identity-Info'' CHR ''N'',
     hdr ''In-Reply-To'' CHR '' '',
     hdr ''Max-Forwards'' CHR '' '',
     hdr ''Min-Expires'' CHR '' '',
     hdr ''MIME-Version'' CHR '' '',
     hdr ''Organization'' CHR '' '',
     hdr ''Priority'' CHR '' '',
     hdr ''Proxy-Authenticate'' CHR '' '',
     hdr ''Proxy-Authorization'' CHR '' '',
     hdr ''Proxy-Require'' CHR '' '',
     hdr ''Record-Route'' CHR '' '',
     hdr ''Refer-To'' CHR ''R'',
     hdr ''Referred-By'' CHR ''B'',
     hdr ''Reject-Contact'' CHR ''J'',
     hdr ''Reply-To'' CHR '' '',
     hdr ''Request-Disposition'' CHR ''D'',
     hdr ''Require'' CHR '' '',
     hdr ''Retry-After'' CHR '' '',
     hdr ''Route'' CHR '' '',
     hdr ''Server'' CHR '' '',
     hdr ''Session-Expires'' CHR ''X'',
     hdr ''Subject'' CHR ''S'',
     hdr ''Supported'' CHR ''K'',
     hdr ''Timestamp'' CHR '' '',
     hdr ''To'' CHR ''T'',
     hdr ''Unsupported'' CHR '' '',
     hdr ''User-Agent'' CHR '' '',
     hdr ''Via'' CHR ''V'',
     hdr ''Warning'' CHR '' '',
     hdr ''WWW-Authenticate'' CHR '' '']"

subsection \<open>The functions of the C library it calls\<close>

text \<open>In the C locale \<open>tolower\<close> and \<open>toupper\<close> move the ASCII letters only.\<close>

definition c_toupper :: "char \<Rightarrow> int" where
  "c_toupper c = (if 97 \<le> schar c \<and> schar c \<le> 122 then schar c - 32 else schar c)"

fun strncasecmp :: "string \<Rightarrow> string \<Rightarrow> nat \<Rightarrow> int" where
  "strncasecmp s t 0 = 0"
| "strncasecmp s t (Suc n) =
     (let a = (case s of [] \<Rightarrow> CHR 0x00 | c # w \<Rightarrow> c);
          b = (case t of [] \<Rightarrow> CHR 0x00 | c # w \<Rightarrow> c);
          d = schar (downcase_char a) mod 256 - schar (downcase_char b) mod 256
      in if d \<noteq> 0 then d else if a = CHR 0x00 then 0 else strncasecmp (tl s) (tl t) n)"

subsection \<open>The tables\<close>

definition init_common_headers :: "common_header_name list \<Rightarrow> common_header_name list" where
  "init_common_headers cfs = map (\<lambda>cf. cf\<lparr>ch_value := Str (take (nat (ch_len cf)) (ch_name cf))\<rparr>) cfs"

text \<open>
  The loop that fills \<open>short_headers\<close>, an array of \<open>NUM_SHORT_HEADERS\<close> entries; writing behind
  its end is \<open>None\<close>.
\<close>

fun init_short_headers_loop ::
  "common_header_name list \<Rightarrow> nat \<Rightarrow> short_header list \<Rightarrow> short_header list option" where
  "init_short_headers_loop [] j sh = Some sh"
| "init_short_headers_loop (cf # cfs) j sh =
     (if ch_short_name cf \<noteq> CHR '' '' then
        if j < length sh then
          init_short_headers_loop cfs (j + 1)
            (sh[j := \<lparr>sh_abbr = ch_short_name cf, sh_value = ch_value cf\<rparr>])
        else None
      else init_short_headers_loop cfs j sh)"

definition init_short_headers :: "common_header_name list \<Rightarrow> short_header list option" where
  "init_short_headers cfs =
     init_short_headers_loop cfs 0
       (replicate NUM_SHORT_HEADERS \<lparr>sh_abbr = CHR 0x00, sh_value = Fix 0\<rparr>)"

fun find_common_header_name :: "common_header_name list \<Rightarrow> string \<Rightarrow> ruby_value" where
  "find_common_header_name [] name = Qnil"
| "find_common_header_name (cf # cfs) name =
     (if ch_len cf = int (length name) \<and> strncasecmp (ch_name cf) name (length name) = 0
      then ch_value cf else find_common_header_name cfs name)"

fun find_short_header_name :: "short_header list \<Rightarrow> char \<Rightarrow> ruby_value" where
  "find_short_header_name [] abbr = Qnil"
| "find_short_header_name (sh # shs) abbr =
     (if schar (sh_abbr sh) = c_toupper abbr then sh_value sh else find_short_header_name shs abbr)"

text \<open>The tables after \<open>Init_sip_parser\<close> has run.\<close>

definition the_common_headers :: "common_header_name list" where
  "the_common_headers = init_common_headers common_headers"

definition the_short_headers :: "short_header list" where
  "the_short_headers = (case init_short_headers the_common_headers of Some sh \<Rightarrow> sh | None \<Rightarrow> [])"

subsection \<open>\<open>headerize\<close>\<close>

definition upcase_letter :: "char \<Rightarrow> char" where
  "upcase_letter c = (if 97 \<le> schar c \<and> schar c \<le> 122 then of_schar (schar c - 32) else c)"

text \<open>The loop over the copy of an unknown name, from index \<open>i\<close> on.\<close>

function headerize_loop :: "string \<Rightarrow> nat \<Rightarrow> string" where
  "headerize_loop str i =
     (if i < length str then
        headerize_loop
          (if str ! (i - 1) = CHR ''-'' \<or> str ! (i - 1) = CHR ''_''
           then str[i := upcase_letter (str ! i)]
           else str[i := downcase_char (str ! i)])
          (i + 1)
      else str)"
  by pat_completeness auto
termination by (relation "measure (\<lambda>(str, i). length str - i)") auto

declare headerize_loop.simps [simp del]

definition headerize :: "string \<Rightarrow> ruby_value" where
  "headerize hname =
     (if length hname = 1 then
        (let headerized = find_short_header_name the_short_headers (hd hname)
         in if headerized = Qnil then Str [downcase_char (hd hname)] else headerized)
      else
        (let headerized = find_common_header_name the_common_headers hname
         in if headerized = Qnil
            then Str (headerize_loop (if hname = [] then hname else hname[0 := upcase_letter (hd hname)]) 1)
            else headerized))"

subsection \<open>Case folding\<close>

definition casefold :: "string \<Rightarrow> string" where
  "casefold s = map downcase_char s"

definition is_sep :: "char \<Rightarrow> bool" where
  "is_sep c \<longleftrightarrow> c = CHR ''-'' \<or> c = CHR ''_''"

fun capitalized :: "bool \<Rightarrow> string \<Rightarrow> string" where
  "capitalized up [] = []"
| "capitalized up (c # w) = (if up then upcase_letter c else downcase_char c) # capitalized (is_sep c) w"

lemma schar_upcase_letter:
  "schar (upcase_letter c) = (if 97 \<le> schar c \<and> schar c \<le> 122 then schar c - 32 else schar c)"
  by (auto simp: upcase_letter_def)

lemma is_sep_schar: "is_sep c \<longleftrightarrow> schar c = 45 \<or> schar c = 95"
proof -
  have "schar CHR ''-'' = 45" "schar CHR ''_'' = 95" by (simp_all add: schar_def)
  then show ?thesis unfolding is_sep_def by (metis schar_inject)
qed

lemma downcase_eq_schar: "downcase_char c = downcase_char d \<longleftrightarrow> schar (downcase_char c) = schar (downcase_char d)"
  by simp

lemma downcase_upcase_letter [simp]: "downcase_char (upcase_letter c) = downcase_char c"
  unfolding downcase_eq_schar
  by (auto simp: schar_downcase schar_upcase_letter is_upcase_def letter_codes)

lemma upcase_letter_downcase [simp]: "upcase_letter (downcase_char c) = upcase_letter c"
  by (auto simp: schar_inject [symmetric] schar_downcase schar_upcase_letter is_upcase_def letter_codes
      simp del: schar_inject)

lemma is_sep_case [simp]: "is_sep (downcase_char c) = is_sep c" "is_sep (upcase_letter c) = is_sep c"
  by (auto simp: is_sep_schar schar_downcase schar_upcase_letter is_upcase_def letter_codes)

lemma upcase_letter_idem [simp]: "upcase_letter (upcase_letter c) = upcase_letter c"
  by (metis downcase_upcase_letter upcase_letter_downcase)

lemma casefold_length: "casefold s = casefold t \<Longrightarrow> length s = length t"
  by (metis casefold_def length_map)

lemma casefold_casefold [simp]: "casefold (casefold s) = casefold s"
  by (simp add: casefold_def)

lemma casefold_capitalized [simp]: "casefold (capitalized up s) = casefold s"
  by (induction up s rule: capitalized.induct) (auto simp: casefold_def)

lemma capitalized_casefold [simp]: "capitalized up (casefold s) = capitalized up s"
  by (induction up s rule: capitalized.induct) (auto simp: casefold_def)

lemma headerize_loop_eq:
  "1 \<le> i \<Longrightarrow> i \<le> length str \<Longrightarrow>
    headerize_loop str i = take i str @ capitalized (is_sep (str ! (i - 1))) (drop i str)"
proof (induction str i rule: headerize_loop.induct)
  case (1 str i)
  show ?case
  proof (cases "i < length str")
    case True
    let ?c = "if is_sep (str ! (i - 1)) then upcase_letter (str ! i) else downcase_char (str ! i)"
    have b: "(if str ! (i - 1) = CHR ''-'' \<or> str ! (i - 1) = CHR ''_''
       then str[i := upcase_letter (str ! i)] else str[i := downcase_char (str ! i)]) = str[i := ?c]"
      by (simp add: is_sep_def)
    have "headerize_loop str i = headerize_loop (str[i := ?c]) (i + 1)"
      using True by (subst headerize_loop.simps) (simp add: is_sep_def)
    also have "\<dots> = take (i + 1) (str[i := ?c]) @
        capitalized (is_sep (str[i := ?c] ! i)) (drop (i + 1) (str[i := ?c]))"
      using 1(1) [OF True] 1(2) True unfolding b by simp
    finally show ?thesis
      using True 1(2) by (simp add: take_Suc_conv_app_nth Cons_nth_drop_Suc [symmetric])
  next
    case False
    with 1(3) show ?thesis by (subst headerize_loop.simps) simp
  qed
qed

lemma headerize_unknown:
  "headerize_loop (if hname = [] then hname else hname[0 := upcase_letter (hd hname)]) 1 =
    capitalized True hname"
proof (cases hname)
  case Nil
  then show ?thesis by (subst headerize_loop.simps) simp
next
  case (Cons c w)
  then show ?thesis by (simp add: headerize_loop_eq)
qed

lemma headerize_long:
  "length s \<noteq> 1 \<Longrightarrow>
    headerize s = (let v = find_common_header_name the_common_headers s
                   in if v = Qnil then Str (capitalized True s) else v)"
  by (simp only: headerize_def headerize_unknown Let_def if_False)

lemma headerize_short:
  "headerize [c] = (let v = find_short_header_name the_short_headers c
                    in if v = Qnil then Str [downcase_char c] else v)"
  by (simp add: headerize_def Let_def)

subsection \<open>Lookups\<close>

lemma mod256_schar: "schar c mod 256 = schar d mod 256 \<longleftrightarrow> c = d"
proof
  assume "schar c mod 256 = schar d mod 256"
  then have "(of_char c :: int) = of_char d" by (simp only: schar_mod)
  then show "c = d" by (simp add: of_char_int_eq)
qed simp

lemma strncasecmp_eq:
  "CHR 0x00 \<notin> set s \<Longrightarrow> length s = length t \<Longrightarrow>
    strncasecmp s t (length t) = 0 \<longleftrightarrow> casefold s = casefold t"
proof (induction s arbitrary: t)
  case (Cons c s)
  then obtain d u where t: "t = d # u" by (cases t) auto
  with Cons show ?case by (auto simp: casefold_def Let_def mod256_schar)
qed (simp add: casefold_def)

definition well_formed_table :: "common_header_name list \<Rightarrow> bool" where
  "well_formed_table cfs =
     list_all (\<lambda>cf. ch_len cf = int (length (ch_name cf)) \<and> CHR 0x00 \<notin> set (ch_name cf)) cfs"

lemma find_common_header_name_eq:
  "well_formed_table cfs \<Longrightarrow>
    find_common_header_name cfs name =
      (case List.find (\<lambda>cf. casefold (ch_name cf) = casefold name) cfs of
         Some cf \<Rightarrow> ch_value cf | None \<Rightarrow> Qnil)"
proof (induction cfs)
  case (Cons cf cfs)
  then have cf: "ch_len cf = int (length (ch_name cf))" "CHR 0x00 \<notin> set (ch_name cf)"
    by (simp_all add: well_formed_table_def)
  have "ch_len cf = int (length name) \<and> strncasecmp (ch_name cf) name (length name) = 0 \<longleftrightarrow>
    casefold (ch_name cf) = casefold name"
    using strncasecmp_eq [OF cf(2), of name] cf(1) by (auto dest: casefold_length)
  with Cons show ?case by (simp add: well_formed_table_def)
qed simp

lemma find_short_casefold:
  assumes "downcase_char c = downcase_char d"
  shows "find_short_header_name shs c = find_short_header_name shs d"
proof -
  have "c_toupper x = schar (upcase_letter x)" for x
    by (simp add: c_toupper_def schar_upcase_letter)
  then have "c_toupper c = c_toupper d" using assms by (metis upcase_letter_downcase)
  then show ?thesis by (induction shs) simp_all
qed

lemma the_common_headers_table: "well_formed_table the_common_headers"
  by (simp add: well_formed_table_def the_common_headers_def init_common_headers_def
      common_headers_def hdr_def)

lemma headerize_casefold:
  assumes "casefold s = casefold t"
  shows "headerize s = headerize t"
proof -
  have l: "length s = length t" by (rule casefold_length [OF assms])
  show ?thesis
  proof (cases "length s = 1")
    case True
    with l obtain c d where st: "s = [c]" "t = [d]"
      by (cases s; cases t) auto
    with assms have "downcase_char c = downcase_char d" by (simp add: casefold_def)
    with st find_short_casefold [OF this] show ?thesis by (simp add: headerize_short Let_def)
  next
    case False
    have "capitalized True s = capitalized True t" using assms by (metis capitalized_casefold)
    with False l assms show ?thesis
      by (simp add: headerize_long find_common_header_name_eq [OF the_common_headers_table] Let_def)
  qed
qed

text \<open>
  C26.  \<open>headerize\<close> does not depend on the case of the letters of the name.
\<close>

theorem headerize_case_insensitive:
  assumes "casefold s = casefold t"
  shows "headerize s = headerize t"
  by (rule headerize_casefold [OF assms])

theorem headerize_case_insensitive_witness: "headerize ''x-fOO'' = headerize ''X-Foo''"
  by (rule headerize_case_insensitive) code_simp

text \<open>What the two tables hold.\<close>

lemma the_common_headers_values:
  "list_all (\<lambda>cf. ch_value cf = Str (ch_name cf) \<and> length (ch_name cf) \<noteq> 1) the_common_headers"
  by (simp add: the_common_headers_def init_common_headers_def common_headers_def hdr_def)

lemma the_common_headers_distinct: "distinct (map (\<lambda>cf. casefold (ch_name cf)) the_common_headers)"
  by code_simp

text \<open>
  The loop that fills \<open>short_headers\<close> stays inside the array and leaves no entry of it
  unset: the table has exactly \<open>NUM_SHORT_HEADERS\<close> short forms, one per letter.
\<close>

theorem init_short_headers_fills:
  "(case init_short_headers the_common_headers of
      None \<Rightarrow> False
    | Some shs \<Rightarrow>
        length shs = NUM_SHORT_HEADERS \<and>
        map sh_abbr shs = map ch_short_name (filter (\<lambda>cf. ch_short_name cf \<noteq> CHR '' '') common_headers) \<and>
        distinct (map sh_abbr shs))"
  by code_simp

lemma the_short_headers_values:
  "list_all (\<lambda>sh. sh_value sh \<in> set (map ch_value the_common_headers)) the_short_headers"
  by code_simp

lemma short_forms:
  "list_all (\<lambda>cf. ch_short_name cf = CHR '' '' \<or>
      find_short_header_name the_short_headers (ch_short_name cf) = Str (ch_name cf)) common_headers"
  by code_simp

lemma find_distinct:
  "distinct (map f xs) \<Longrightarrow> x \<in> set xs \<Longrightarrow> List.find (\<lambda>y. f y = f x) xs = Some x"
  by (induction xs) (auto simp: rev_image_eqI)

lemma headerize_common:
  assumes "cf \<in> set the_common_headers"
  shows "headerize (ch_name cf) = Str (ch_name cf)"
proof -
  have v: "ch_value cf = Str (ch_name cf)" "length (ch_name cf) \<noteq> 1"
    using the_common_headers_values assms by (simp_all add: list_all_iff)
  have "find_common_header_name the_common_headers (ch_name cf) = ch_value cf"
    using find_distinct [OF the_common_headers_distinct assms]
    by (simp add: find_common_header_name_eq [OF the_common_headers_table])
  with v show ?thesis by (simp add: headerize_long)
qed

lemma find_common_cases:
  "find_common_header_name cfs s = Qnil \<or> (\<exists>cf \<in> set cfs. find_common_header_name cfs s = ch_value cf)"
  by (induction cfs) auto

lemma find_short_cases:
  "find_short_header_name shs c = Qnil \<or> (\<exists>sh \<in> set shs. find_short_header_name shs c = sh_value sh)"
  by (induction shs) auto

lemma headerize_table_value:
  assumes "v \<in> ch_value ` set the_common_headers"
  shows "\<exists>name. v = Str name \<and> headerize name = Str name"
  using assms the_common_headers_values headerize_common by (auto simp: list_all_iff)

text \<open>
  C27.  \<open>headerize\<close> always returns a String, and its result is canonical: given the result, it
  returns it unchanged.
\<close>

theorem headerize_canonical: "\<exists>name. headerize s = Str name \<and> headerize name = Str name"
proof (cases "length s = 1")
  case True
  then obtain c where s: "s = [c]" by (cases s) auto
  show ?thesis
  proof (cases "find_short_header_name the_short_headers c = Qnil")
    case nil: True
    then have "headerize s = Str [downcase_char c]" by (simp add: s headerize_short)
    moreover have "headerize [downcase_char c] = headerize [c]"
      by (rule headerize_casefold) (simp add: casefold_def)
    ultimately show ?thesis by (simp add: s)
  next
    case False
    then have "headerize s \<in> ch_value ` set the_common_headers"
      using find_short_cases [of the_short_headers c] the_short_headers_values
      by (auto simp: s headerize_short list_all_iff)
    then show ?thesis by (rule headerize_table_value)
  qed
next
  case False
  show ?thesis
  proof (cases "find_common_header_name the_common_headers s = Qnil")
    case True
    with False have "headerize s = Str (capitalized True s)" by (simp add: headerize_long)
    moreover have "headerize (capitalized True s) = headerize s"
      by (rule headerize_casefold) simp
    ultimately show ?thesis by simp
  next
    case found: False
    then have "headerize s \<in> ch_value ` set the_common_headers"
      using find_common_cases [of the_common_headers s] False by (auto simp: headerize_long Let_def)
    then show ?thesis by (rule headerize_table_value)
  qed
qed

text \<open>
  C28.  The short form of a header and its long form, in any case, have the same canonical name.
\<close>

theorem headerize_short_form:
  assumes "cf \<in> set common_headers" and "ch_short_name cf \<noteq> CHR '' ''"
    and "downcase_char c = downcase_char (ch_short_name cf)" and "casefold s = casefold (ch_name cf)"
  shows "headerize [c] = Str (ch_name cf) \<and> headerize s = Str (ch_name cf)"
proof -
  have "headerize [c] = headerize [ch_short_name cf]"
    using assms(3) by (intro headerize_casefold) (simp add: casefold_def)
  moreover have "find_short_header_name the_short_headers (ch_short_name cf) = Str (ch_name cf)"
    using short_forms assms(1,2) by (auto simp: list_all_iff)
  moreover have "\<exists>cf' \<in> set the_common_headers. ch_name cf' = ch_name cf"
    using assms(1) by (auto simp: the_common_headers_def init_common_headers_def)
  then have "headerize (ch_name cf) = Str (ch_name cf)" using headerize_common by metis
  ultimately show ?thesis
    using headerize_casefold [OF assms(4)] by (simp add: headerize_short Let_def)
qed

theorem headerize_short_form_witness:
  "headerize ''v'' = Str ''Via'' \<and> headerize ''VIA'' = Str ''Via''"
proof -
  have "hdr ''Via'' CHR ''V'' \<in> set common_headers" by (simp add: common_headers_def)
  moreover have "downcase_char CHR ''v'' = downcase_char CHR ''V''" "casefold ''VIA'' = casefold ''Via''"
    by code_simp+
  ultimately show ?thesis
    using headerize_short_form [of "hdr ''Via'' CHR ''V''" "CHR ''v''" "''VIA''"]
    by (simp add: hdr_def)
qed

end
