(* ===== verification/Flow_Grammar.thy ===== *)
theory Flow_Grammar
  imports Ipv4_Spec Automaton_Cert
begin

text \<open>
  The grammars of ext/utils/outbound_utils.rl and ext/utils/haproxy_protocol.rl, with \<open>port\<close> of
  grammar_ip.rl, and the actions the two machines share.  Beside the whole line, the prefixes
  of a line at whose end an action runs are grammars of their own: an action is due when one
  of them is complete.
\<close>

subsection \<open>Ports\<close>

text \<open>The union of the rule, before the zeros are taken out.\<close>

definition port_union :: rx where
  "port_union =
     Alt (Rep 1 4 DIGIT)
    (Alt (Cat (Ch 49 53) (Rep 4 4 DIGIT))
    (Alt (Cat (Ch 54 54) (Cat (Ch 48 52) (Rep 3 3 DIGIT)))
    (Alt (Cat (Ch 54 54) (Cat (Ch 53 53) (Cat (Ch 48 52) (Rep 2 2 DIGIT))))
    (Alt (Cat (Ch 54 54) (Cat (Ch 53 53) (Cat (Ch 53 53) (Cat (Ch 48 50) DIGIT))))
         (Cat (Ch 54 54) (Cat (Ch 53 53) (Cat (Ch 53 53) (Cat (Ch 51 51) (Ch 48 53)))))))))"

text \<open>The rule without the difference: four digits or fewer with one that is not zero.\<close>

definition port :: rx where
  "port =
     Alt (Cat (Ch 49 57) (Rep 0 3 DIGIT))
    (Alt (Cat (Ch 48 48) (Cat (Ch 49 57) (Rep 0 2 DIGIT)))
    (Alt (Cat (Ch 48 48) (Cat (Ch 48 48) (Cat (Ch 49 57) (Rep 0 1 DIGIT))))
    (Alt (Cat (Ch 48 48) (Cat (Ch 48 48) (Cat (Ch 48 48) (Ch 49 57))))
    (Alt (Cat (Ch 49 53) (Rep 4 4 DIGIT))
    (Alt (Cat (Ch 54 54) (Cat (Ch 48 52) (Rep 3 3 DIGIT)))
    (Alt (Cat (Ch 54 54) (Cat (Ch 53 53) (Cat (Ch 48 52) (Rep 2 2 DIGIT))))
    (Alt (Cat (Ch 54 54) (Cat (Ch 53 53) (Cat (Ch 53 53) (Cat (Ch 48 50) DIGIT))))
         (Cat (Ch 54 54) (Cat (Ch 53 53) (Cat (Ch 53 53) (Cat (Ch 51 51) (Ch 48 53))))))))))))"

definition IPaddress :: rx where
  "IPaddress = Alt IPv4address IPv6address"

subsection \<open>Actions\<close>

datatype flow_action =
  Is_ipv4 | Is_ipv6 | Start_ip | End_ip | Start_port | End_port | Finish

subsection \<open>The flow token\<close>

definition flow_port :: rx where
  "flow_port = Cat (Ch 95 95) port"

text \<open>
  The grammars of the token: the address and the underscore for either family, the token, and
  the empty word (the start of the address).
\<close>

definition flow_grammars :: "rx list" where
  "flow_grammars =
     [Cat IPv4address (Ch 95 95), Cat IPv6address (Ch 95 95), Cat IPaddress flow_port, Eps]"

definition flow_acts_ok :: "flow_action list \<Rightarrow> residual \<Rightarrow> residual \<Rightarrow> bool" where
  "flow_acts_ok as X Y =
     (case X of
        [x0, x1, x2, x3] \<Rightarrow>
          (case Y of
             [y0, y1, y2, y3] \<Rightarrow>
               as = (if stacks_null x3 then [Start_ip] else []) @
                 (if stacks_null y0 then [Is_ipv4, End_ip] else []) @
                 (if stacks_null y1 then [Is_ipv6, End_ip] else []) @
                 (if stacks_null x0 then [Start_port] else if stacks_null x1 then [Start_port] else []) @
                 (if stacks_null y2 then [End_port, Finish] else [])
           | _ \<Rightarrow> False)
      | _ \<Rightarrow> False)"

subsection \<open>The HAProxy line\<close>

definition ha_start :: rx where
  "ha_start =
     Cat (Ch 80 80) (Cat (Ch 82 82) (Cat (Ch 79 79) (Cat (Ch 88 88) (Cat (Ch 89 89)
    (Cat (Ch 32 32) (Cat (Ch 84 84) (Cat (Ch 67 67) (Cat (Ch 80 80)
    (Cat (Alt (Ch 52 52) (Ch 54 54)) (Ch 32 32))))))))))"

definition ha_address2 :: rx where
  "ha_address2 = Cat (Ch 32 32) (Cat IPaddress (Ch 32 32))"

definition ha_to_port :: rx where
  "ha_to_port = Cat (Ch 32 32) (Cat IPaddress (Cat (Ch 32 32) port))"

definition ha_end :: rx where
  "ha_end = Cat (Ch 32 32) (Cat port (Cat (Ch 13 13) (Ch 10 10)))"

definition ha_to_end :: rx where
  "ha_to_end = Cat (Ch 32 32) (Cat IPaddress (Cat (Ch 32 32) (Cat port ha_end)))"

text \<open>
  The grammars of the line: up to the space behind the first address for either family, up to
  the first port, the whole line, up to the first address, and up to the space in front of the
  first port.
\<close>

definition ha_grammars :: "rx list" where
  "ha_grammars =
     [Cat ha_start (Cat IPv4address (Ch 32 32)), Cat ha_start (Cat IPv6address (Ch 32 32)),
      Cat ha_start (Cat IPaddress ha_to_port), Cat ha_start (Cat IPaddress ha_to_end),
      ha_start, Cat ha_start (Cat IPaddress ha_address2)]"

definition ha_acts_ok :: "flow_action list \<Rightarrow> residual \<Rightarrow> residual \<Rightarrow> bool" where
  "ha_acts_ok as X Y =
     (case X of
        [x0, x1, x2, x3, x4, x5] \<Rightarrow>
          (case Y of
             [y0, y1, y2, y3, y4, y5] \<Rightarrow>
               as = (if stacks_null x4 then [Start_ip] else []) @
                 (if stacks_null y0 then [Is_ipv4, End_ip] else []) @
                 (if stacks_null y1 then [Is_ipv6, End_ip] else []) @
                 (if stacks_null x5 then [Start_port] else []) @
                 (if stacks_null y2 then [End_port] else []) @
                 (if stacks_null y3 then [Finish] else [])
           | _ \<Rightarrow> False)
      | _ \<Rightarrow> False)"

subsection \<open>Derivatives of the named rules\<close>

lemmas pd_flow_unfold =
  arg_cong [where f = "\<lambda>r. pd c (r # k)" for c k, OF port_def]
  arg_cong [where f = "\<lambda>r. pd c (r # k)" for c k, OF IPaddress_def]
  arg_cong [where f = "\<lambda>r. pd c (r # k)" for c k, OF flow_port_def]
  arg_cong [where f = "\<lambda>r. pd c (r # k)" for c k, OF ha_start_def]
  arg_cong [where f = "\<lambda>r. pd c (r # k)" for c k, OF ha_address2_def]
  arg_cong [where f = "\<lambda>r. pd c (r # k)" for c k, OF ha_to_port_def]
  arg_cong [where f = "\<lambda>r. pd c (r # k)" for c k, OF ha_end_def]
  arg_cong [where f = "\<lambda>r. pd c (r # k)" for c k, OF ha_to_end_def]

lemmas first_flow_unfold =
  arg_cong [where f = "\<lambda>r. first_in B (r # k)" for B k, OF port_def]
  arg_cong [where f = "\<lambda>r. first_in B (r # k)" for B k, OF IPaddress_def]
  arg_cong [where f = "\<lambda>r. first_in B (r # k)" for B k, OF flow_port_def]
  arg_cong [where f = "\<lambda>r. first_in B (r # k)" for B k, OF ha_start_def]
  arg_cong [where f = "\<lambda>r. first_in B (r # k)" for B k, OF ha_address2_def]
  arg_cong [where f = "\<lambda>r. first_in B (r # k)" for B k, OF ha_to_port_def]
  arg_cong [where f = "\<lambda>r. first_in B (r # k)" for B k, OF ha_end_def]
  arg_cong [where f = "\<lambda>r. first_in B (r # k)" for B k, OF ha_to_end_def]

lemmas flow_grammar_defs =
  port_def IPaddress_def flow_port_def ha_start_def ha_address2_def ha_to_port_def ha_end_def
  ha_to_end_def

lemma null_flow_rules:
  "\<not> rx_null port" "\<not> rx_null IPaddress" "\<not> rx_null flow_port" "\<not> rx_null ha_start"
  "\<not> rx_null ha_address2" "\<not> rx_null ha_to_port" "\<not> rx_null ha_end" "\<not> rx_null ha_to_end"
  by (simp_all add: flow_grammar_defs null_ip_rules)

lemmas [cert_eval] =
  pd_flow_unfold first_flow_unfold null_flow_rules pd_ip_rules pd_ip_unfold first_ip_rules
  first_ip_unfold null_ip_rules list.case
  flow_action.distinct

end
