(* ===== verification/Flow_Events.thy ===== *)
theory Flow_Events
  imports Flow_Grammar Ruby_Value
begin

text \<open>
  What the actions of ext/utils/outbound_utils.rl and ext/utils/haproxy_protocol.rl do: both
  write the type, the start and the length of an address and the start and the length of a port
  into a struct, and set a flag.  Pointers into the buffer are offsets from its start; the type
  of the address is not set before its action runs.
\<close>

datatype flow_ip_type = ip_type_ipv4' | ip_type_ipv6'

record flow_fields =
  valid :: nat
  ip_type :: "flow_ip_type option"
  ip_s :: nat
  ip_len :: nat
  port_s :: nat
  port_len :: nat

definition flow_init :: flow_fields where
  "flow_init = \<lparr>valid = 0, ip_type = None, ip_s = 0, ip_len = 0, port_s = 0, port_len = 0\<rparr>"

text \<open>The struct and the flag \<open>finished\<close>; \<open>p\<close> is \<open>fpc\<close>, the position of the character read.\<close>

fun flow_act :: "flow_action \<Rightarrow> nat \<Rightarrow> flow_fields \<times> bool \<Rightarrow> flow_fields \<times> bool" where
  "flow_act Is_ipv4 p (t, finished) = (t\<lparr>ip_type := Some ip_type_ipv4'\<rparr>, finished)"
| "flow_act Is_ipv6 p (t, finished) = (t\<lparr>ip_type := Some ip_type_ipv6'\<rparr>, finished)"
| "flow_act Start_ip p (t, finished) = (t\<lparr>ip_s := p\<rparr>, finished)"
| "flow_act End_ip p (t, finished) = (t\<lparr>ip_len := p - ip_s t\<rparr>, finished)"
| "flow_act Start_port p (t, finished) = (t\<lparr>port_s := p\<rparr>, finished)"
| "flow_act End_port p (t, finished) = (t\<lparr>port_len := p - port_s t + 1\<rparr>, finished)"
| "flow_act Finish p (t, finished) = (t, True)"

definition flow_run :: "(nat \<Rightarrow> flow_action list) \<Rightarrow> nat \<Rightarrow> flow_fields \<times> bool" where
  "flow_run acts n = foldl (\<lambda>d i. fold (\<lambda>a. flow_act a i) (acts i) d) (flow_init, False) [0..<n]"

lemma flow_run_Suc: "flow_run acts (Suc n) = fold (\<lambda>a. flow_act a n) (acts n) (flow_run acts n)"
  by (simp add: flow_run_def)

text \<open>
  The events of a complete line: the address from \<open>s0\<close> to \<open>e0\<close>, the port from \<open>p0\<close> to \<open>p1\<close>.
\<close>

definition line_acts ::
  "nat \<Rightarrow> nat \<Rightarrow> nat \<Rightarrow> flow_ip_type \<Rightarrow> (nat \<Rightarrow> bool) \<Rightarrow> (nat \<Rightarrow> bool) \<Rightarrow> nat \<Rightarrow> flow_action list" where
  "line_acts s0 e0 p0 t E F i =
     (if i = s0 then [Start_ip] else []) @
     (if i = e0 \<and> t = ip_type_ipv4' then [Is_ipv4, End_ip] else []) @
     (if i = e0 \<and> t = ip_type_ipv6' then [Is_ipv6, End_ip] else []) @
     (if i = p0 then [Start_port] else []) @
     (if E i then [End_port] else []) @ (if F i then [Finish] else [])"

lemma line_acts_effect:
  assumes "s0 < e0"
  shows "fold (\<lambda>a. flow_act a i) (line_acts s0 e0 p0 t E F i) (d, f) =
    (d\<lparr>ip_type := if i = e0 then Some t else ip_type d,
       ip_s := if i = s0 then i else ip_s d,
       ip_len := if i = e0 then i - ip_s d else ip_len d,
       port_s := if i = p0 then i else port_s d,
       port_len := if E i then i - (if i = p0 then i else port_s d) + 1 else port_len d\<rparr>,
     f \<or> F i)"
  using assms by (cases d; cases t) (auto simp: line_acts_def)

lemma flow_run_line:
  assumes "s0 < e0" and "e0 < p0" and "p0 < p1" and "p1 \<le> n"
    and "\<And>i. E i \<Longrightarrow> p0 \<le> i" and "E (p1 - 1)" and "\<And>i. p1 \<le> i \<Longrightarrow> \<not> E i"
  shows "flow_run (line_acts s0 e0 p0 t E F) n =
    (\<lparr>valid = 0, ip_type = Some t, ip_s = s0, ip_len = e0 - s0, port_s = p0, port_len = p1 - p0\<rparr>,
     \<exists>i < n. F i)"
proof -
  have "\<exists>l. flow_run (line_acts s0 e0 p0 t E F) n =
      (\<lparr>valid = 0, ip_type = if e0 < n then Some t else None, ip_s = if s0 < n then s0 else 0,
        ip_len = if e0 < n then e0 - s0 else 0, port_s = if p0 < n then p0 else 0, port_len = l\<rparr>,
       \<exists>i < n. F i) \<and> (p1 \<le> n \<longrightarrow> l = p1 - p0)" for n
  proof (induction n)
    case 0
    show ?case using assms(3) by (simp add: flow_run_def flow_init_def)
  next
    case (Suc n)
    then obtain l where l: "flow_run (line_acts s0 e0 p0 t E F) n =
      (\<lparr>valid = 0, ip_type = if e0 < n then Some t else None, ip_s = if s0 < n then s0 else 0,
        ip_len = if e0 < n then e0 - s0 else 0, port_s = if p0 < n then p0 else 0, port_len = l\<rparr>,
       \<exists>i < n. F i)" "p1 \<le> n \<longrightarrow> l = p1 - p0" by blast
    have "E n \<Longrightarrow> p0 \<le> n \<and> n < p1" using assms(5,7) by (meson not_le_imp_less)
    moreover have "p1 = Suc n \<Longrightarrow> E n" using assms(6) by simp
    ultimately show ?case
      using assms(1-3) l(2)
      by (simp add: flow_run_Suc l(1) line_acts_effect [OF assms(1)] less_Suc_eq)
        (auto simp: le_Suc_eq)
  qed
  from this [of n] assms show ?thesis by auto
qed

end
