(* ===== verification/Port_Spec.thy ===== *)
theory Port_Spec
  imports Flow_Grammar
begin

text \<open>
  Ports in plain terms: at most five digits with a value from 1 to 65535, five of them only
  without a leading zero.
\<close>

definition is_digit :: "char \<Rightarrow> bool" where
  "is_digit c \<longleftrightarrow> 48 \<le> schar c \<and> schar c \<le> 57"

definition port_text :: "string \<Rightarrow> bool" where
  "port_text w \<longleftrightarrow>
     list_all is_digit w \<and> length w \<le> 5 \<and> 1 \<le> dec_val w \<and> dec_val w \<le> 65535 \<and>
     (length w = 5 \<longrightarrow> hd w \<noteq> CHR ''0'')"

lemma in_lang_Rep_digits:
  "w \<in> lang (Rep lo hi DIGIT) \<longleftrightarrow> lo \<le> length w \<and> length w \<le> hi \<and> list_all is_digit w"
proof -
  have "w \<in> lpow n (lang DIGIT) \<longleftrightarrow> length w = n \<and> list_all is_digit w" for n w
  proof (induction n arbitrary: w)
    case (Suc n)
    show ?case
      unfolding lpow.simps DIGIT_def in_conc_Ch [unfolded DIGIT_def]
      using Suc [unfolded DIGIT_def] by (cases w) (auto simp: is_digit_def)
  qed auto
  then show ?thesis by auto
qed

lemma in_DIGIT: "w \<in> lang DIGIT \<longleftrightarrow> (\<exists>c. w = [c] \<and> is_digit c)"
  by (auto simp: DIGIT_def is_digit_def)

lemma list5_cases:
  "length w \<le> 5 \<Longrightarrow> w = [] \<or> (\<exists>a. w = [a]) \<or> (\<exists>a b. w = [a, b]) \<or> (\<exists>a b c. w = [a, b, c]) \<or>
    (\<exists>a b c d. w = [a, b, c, d]) \<or> (\<exists>a b c d e. w = [a, b, c, d, e])"
  by (auto simp: le_Suc_eq length_Suc_conv eval_nat_numeral)

lemmas port_mem =
  lang.simps(3,4) Un_iff in_conc_Ch in_lang_Ch in_lang_Rep_digits in_DIGIT

text \<open>The five-digit numbers up to 65535, digit by digit.\<close>

lemma five_digits:
  fixes a b c d e :: nat
  assumes "b \<le> 9" "c \<le> 9" "d \<le> 9" "e \<le> 9"
  shows "10 * (10 * (10 * (10 * a + b) + c) + d) + e \<le> 65535 \<longleftrightarrow>
    a \<le> 5 \<or> a = 6 \<and> (b \<le> 4 \<or> b = 5 \<and> (c \<le> 4 \<or> c = 5 \<and> (d \<le> 2 \<or> d = 3 \<and> e \<le> 5)))"
proof -
  have e: "10 * x + e \<le> 65535 \<longleftrightarrow> x \<le> 6552 \<or> x = 6553 \<and> e \<le> 5" for x
    using assms(4) by linarith
  have d: "10 * x + d \<le> 6552 \<longleftrightarrow> x \<le> 654 \<or> x = 655 \<and> d \<le> 2"
    "10 * x + d = 6553 \<longleftrightarrow> x = 655 \<and> d = 3" for x
    using assms(3) by (linarith, presburger)
  have c: "10 * x + c \<le> 654 \<longleftrightarrow> x \<le> 64 \<or> x = 65 \<and> c \<le> 4"
    "10 * x + c = 655 \<longleftrightarrow> x = 65 \<and> c = 5" for x
    using assms(2) by (linarith, presburger)
  have b: "10 * a + b \<le> 64 \<longleftrightarrow> a \<le> 5 \<or> a = 6 \<and> b \<le> 4"
    "10 * a + b = 65 \<longleftrightarrow> a = 6 \<and> b = 5"
    using assms(1) by (linarith, presburger)
  show ?thesis unfolding e d c b by blast
qed

lemma is_digit_cases:
  assumes "is_digit c"
  obtains n where "n \<le> 9" "schar c = 48 + int n" "digit_val c = n"
proof (rule that)
  show "digit_val c \<le> 9" "schar c = 48 + int (digit_val c)"
    using assms by (auto simp: is_digit_def digit_val_def)
qed (rule refl)

lemma lang_port_digits: "w \<in> lang port \<Longrightarrow> list_all is_digit w"
  unfolding port_def port_mem by (auto simp: is_digit_def)

lemma lang_port_five:
  assumes "list_all is_digit [a, b, c, d, e]"
  shows "[a, b, c, d, e] \<in> lang port \<longleftrightarrow> port_text [a, b, c, d, e]"
proof -
  from assms have "is_digit a" "is_digit b" "is_digit c" "is_digit d" "is_digit e" by simp_all
  then obtain i j k l m where n: "i \<le> 9" "schar a = 48 + int i" "digit_val a = i"
    "j \<le> 9" "schar b = 48 + int j" "digit_val b = j" "k \<le> 9" "schar c = 48 + int k"
    "digit_val c = k" "l \<le> 9" "schar d = 48 + int l" "digit_val d = l" "m \<le> 9"
    "schar e = 48 + int m" "digit_val e = m"
    by (elim is_digit_cases)
  have "[a, b, c, d, e] \<in> lang port \<longleftrightarrow> i \<noteq> 0 \<and>
    (i \<le> 5 \<or> i = 6 \<and> (j \<le> 4 \<or> j = 5 \<and> (k \<le> 4 \<or> k = 5 \<and> (l \<le> 2 \<or> l = 3 \<and> m \<le> 5))))"
    using n(1,4,7,10,13) unfolding port_def port_mem
    by (simp add: n is_digit_def) linarith
  moreover have "i \<noteq> 0 \<Longrightarrow> 1 \<le> 10 * (10 * (10 * (10 * i + j) + k) + l) + m" by simp
  ultimately show ?thesis
    using five_digits [OF n(4,7,10,13), of i]
    by (auto simp: port_text_def dec_val_def n is_digit_def schar_zero)
qed

lemma lang_port: "w \<in> lang port \<longleftrightarrow> port_text w"
proof (cases "length w \<le> 5 \<and> list_all is_digit w")
  case False
  have "length v \<le> 5" if "v \<in> lang port" for v
    using rx_max_correct [OF that] by (simp add: port_def DIGIT_def)
  with False show ?thesis using lang_port_digits by (auto simp: port_text_def)
next
  case True
  from list5_cases [OF conjunct1 [OF True]] consider "w = []" | a where "w = [a]" | a b where "w = [a, b]"
    | a b c where "w = [a, b, c]" | a b c d where "w = [a, b, c, d]"
    | a b c d e where "w = [a, b, c, d, e]" by blast
  then show ?thesis
  proof cases
    case (6 a b c d e)
    then show ?thesis using True lang_port_five by simp
  next
    case 1
    then show ?thesis unfolding port_def port_mem by (simp add: port_text_def dec_val_def)
  next
    case (2 a)
    with True have "is_digit a" by simp
    then obtain i where "i \<le> 9" "schar a = 48 + int i" "digit_val a = i" by (rule is_digit_cases)
    then show ?thesis
      unfolding 2 port_def port_mem by (auto simp: port_text_def dec_val_def is_digit_def)
  next
    case (3 a b)
    with True have "is_digit a" "is_digit b" by simp_all
    then obtain i j where "i \<le> 9" "schar a = 48 + int i" "digit_val a = i"
      "j \<le> 9" "schar b = 48 + int j" "digit_val b = j" by (elim is_digit_cases)
    then show ?thesis
      unfolding 3 port_def port_mem by (auto simp: port_text_def dec_val_def is_digit_def)
  next
    case (4 a b c)
    with True have "is_digit a" "is_digit b" "is_digit c" by simp_all
    then obtain i j k where "i \<le> 9" "schar a = 48 + int i" "digit_val a = i"
      "j \<le> 9" "schar b = 48 + int j" "digit_val b = j"
      "k \<le> 9" "schar c = 48 + int k" "digit_val c = k" by (elim is_digit_cases)
    then show ?thesis
      unfolding 4 port_def port_mem by (auto simp: port_text_def dec_val_def is_digit_def)
  next
    case (5 a b c d)
    with True have "is_digit a" "is_digit b" "is_digit c" "is_digit d" by simp_all
    then obtain i j k l where "i \<le> 9" "schar a = 48 + int i" "digit_val a = i"
      "j \<le> 9" "schar b = 48 + int j" "digit_val b = j"
      "k \<le> 9" "schar c = 48 + int k" "digit_val c = k"
      "l \<le> 9" "schar d = 48 + int l" "digit_val d = l" by (elim is_digit_cases)
    then show ?thesis
      unfolding 5 port_def port_mem by (auto simp: port_text_def dec_val_def is_digit_def)
  qed
qed

end
