(* ===== verification/Flow_Lines.thy ===== *)
theory Flow_Lines
  imports Flow_Events Port_Spec Ip_Parser C_Util
begin

text \<open>
  What the scanners of the flow token and of the HAProxy line share beside their actions: the
  longest prefix a machine reads, the flag \<open>finished\<close>, and how the separators split a line into
  addresses and ports in one way only.
\<close>

subsection \<open>Where a machine stops\<close>

lemma rgl_run_longest:
  "\<exists>w v. str = w @ v \<and> rgl_run prog s w \<noteq> None \<and> (v = [] \<or> rgl_run prog s (w @ [hd v]) = None)"
proof (induction str arbitrary: s)
  case (Cons c str)
  show ?case
  proof (cases "rgl_step prog s (schar c)")
    case None
    then have "rgl_run prog s [] \<noteq> None" "rgl_run prog s ([] @ [hd (c # str)]) = None" by simp_all
    then show ?thesis by (intro exI [of _ "[]"] exI [of _ "c # str"]) simp
  next
    case (Some x)
    then obtain as t where x: "rgl_step prog s (schar c) = Some (as, t)" by (cases x) auto
    from Cons.IH [of t] obtain w v where wv: "str = w @ v" "rgl_run prog t w \<noteq> None"
      "v = [] \<or> rgl_run prog t (w @ [hd v]) = None" by blast
    with x show ?thesis by (intro exI [of _ "c # w"] exI [of _ v]) simp
  qed
qed simp

text \<open>The data of a run that stops behind \<open>w\<close>, as the events of \<open>w\<close>.\<close>

definition flow_data :: "flow_action rgl_block list \<Rightarrow> int \<Rightarrow> string \<Rightarrow> flow_fields \<times> bool" where
  "flow_data prog s w = flow_run (rgl_acts prog s w) (length w)"

lemma flow_exec_stops:
  assumes "rgl_run prog s w \<noteq> None" and "v = [] \<or> rgl_run prog s (w @ [hd v]) = None"
  shows "snd (rgl_exec prog flow_act s 0 (w @ v) (flow_init, False)) = (length w, flow_data prog s w)"
proof -
  obtain t where t: "rgl_run prog s w = Some t" using assms(1) by blast
  show ?thesis
  proof (cases v)
    case Nil
    then show ?thesis
      by (simp add: rgl_exec_events [OF t] flow_data_def flow_run_def)
  next
    case (Cons c u)
    with assms(2) have n: "rgl_run prog s (w @ [c]) = None" by simp
    show ?thesis
      by (simp add: Cons rgl_exec_stops [OF t n] flow_data_def flow_run_def)
  qed
qed

subsection \<open>The flag\<close>

lemma flow_act_finished: "snd (flow_act a p d) \<longleftrightarrow> snd d \<or> a = Finish"
  by (cases a; cases d) auto

lemma fold_flow_act_finished:
  "snd (fold (\<lambda>a. flow_act a p) as d) \<longleftrightarrow> snd d \<or> Finish \<in> set as"
  by (induction as arbitrary: d) (auto simp: flow_act_finished)

lemma flow_run_finished: "snd (flow_run acts n) \<longleftrightarrow> (\<exists>i < n. Finish \<in> set (acts i))"
proof (induction n)
  case (Suc n)
  then show ?case by (auto simp: flow_run_Suc fold_flow_act_finished less_Suc_eq)
qed (simp add: flow_run_def)

lemma flow_run_cong: "(\<And>i. i < n \<Longrightarrow> f i = g i) \<Longrightarrow> flow_run f n = flow_run g n"
  by (induction n) (simp_all add: flow_run_Suc flow_run_def [of _ 0])

lemma flow_act_valid: "valid (fst (flow_act a p d)) = valid (fst d)"
  by (cases a; cases d) auto

lemma fold_flow_act_valid: "valid (fst (fold (\<lambda>a. flow_act a p) as d)) = valid (fst d)"
  by (induction as arbitrary: d) (auto simp: flow_act_valid)

lemma flow_data_valid: "valid (fst (flow_data prog s w)) = 0"
proof -
  have "valid (fst (flow_run acts n)) = 0" for acts n
    by (induction n) (simp_all add: flow_run_Suc fold_flow_act_valid, simp add: flow_run_def flow_init_def)
  then show ?thesis by (simp add: flow_data_def)
qed

subsection \<open>Addresses and ports between separators\<close>

lemma lang_Ch_single: "schar x = n \<Longrightarrow> lang (Ch n n) = {[x]}"
  using schar_inject by (auto simp: antisym_conv simp del: schar_inject)

lemma flow_separators:
  "lang (Ch 95 95) = {''_''}" "lang (Ch 32 32) = {'' ''}" "lang (Ch 13 13) = {[CHR 0x0D]}"
  "lang (Ch 10 10) = {[CHR 0x0A]}"
  by (rule lang_Ch_single, simp add: schar_def)+

lemma IPaddress_separators:
  assumes "a \<in> lang IPaddress" and "c \<in> set a"
  shows "schar c \<in> {46..58} \<union> {65..70} \<union> {97..102}"
proof -
  have "rx_within ((46, 46) # (58, 58) # hex_ranges) IPaddress"
    by (simp add: IPaddress_def ip_grammar_defs Lit_codes hex_ranges_def)
  from rx_within_correct [OF this assms(1)] assms(2)
  have "in_ranges ((46, 46) # (58, 58) # hex_ranges) c" by (simp add: list_all_iff)
  then show ?thesis by (auto simp: in_ranges_def hex_ranges_def)
qed

lemma no_separator:
  assumes "a \<in> lang IPaddress"
  shows "CHR ''_'' \<notin> set a" "CHR '' '' \<notin> set a" "CHR 0x0D \<notin> set a"
proof -
  have "schar CHR ''_'' = 95" "schar CHR '' '' = 32" "schar CHR 0x0D = 13" by (simp_all add: schar_def)
  then show "CHR ''_'' \<notin> set a" "CHR '' '' \<notin> set a" "CHR 0x0D \<notin> set a"
    using IPaddress_separators [OF assms] by fastforce+
qed

lemma port_no_separator:
  assumes "list_all is_digit q"
  shows "CHR '' '' \<notin> set q" "CHR 0x0D \<notin> set q"
proof -
  have "\<not> is_digit CHR '' ''" "\<not> is_digit CHR 0x0D" by (simp_all add: is_digit_def schar_def)
  with assms show "CHR '' '' \<notin> set q" "CHR 0x0D \<notin> set q" by (auto simp: list_all_iff)
qed

lemma IPaddress_cases:
  "a \<in> lang IPaddress \<longleftrightarrow> a \<in> lang IPv4address \<or> a \<in> lang IPv6address"
  by (simp add: IPaddress_def)

lemma IPv4_not_IPv6: "a \<in> lang IPv4address \<Longrightarrow> a \<notin> lang IPv6address"
  using ip_forms_disjoint [of a 0 "[]" 1] by (auto simp: ip_grammars_def)

lemma IPaddress_nonempty: "a \<in> lang IPaddress \<Longrightarrow> 0 < length a"
proof -
  assume a: "a \<in> lang IPaddress"
  have "rx_min IPaddress = 2"
    by (simp add: IPaddress_def ip_grammar_defs)
  with rx_min_correct [OF a] show ?thesis by linarith
qed

lemma IPaddress_length: "a \<in> lang IPaddress \<Longrightarrow> length a \<le> 45"
proof -
  assume a: "a \<in> lang IPaddress"
  have "rx_max IPaddress = 45"
    by (simp add: IPaddress_def ip_grammar_defs)
  with rx_max_correct [OF a] show ?thesis by simp
qed

lemma dec_val_mono: "dec_val v \<le> dec_val (v @ w)"
proof -
  have "dec_val v * 1 \<le> dec_val v * 10 ^ length w" by simp
  also have "\<dots> \<le> dec_val (v @ w)" unfolding dec_val_def foldl_append by (rule dec_val_ge)
  finally show ?thesis by simp
qed

text \<open>Between a port and a longer one that starts with it there are only ports.\<close>

lemma port_between:
  assumes "port_text u" and "port_text (u @ w @ v)"
  shows "port_text (u @ w)"
  using assms dec_val_mono [of u w] dec_val_mono [of "u @ w" v]
  by (cases u) (auto simp: port_text_def dec_val_def)

lemma port_text_nonempty: "port_text q \<Longrightarrow> 0 < length q"
  by (cases q) (simp_all add: port_text_def dec_val_def)

lemma port_str_to_int:
  assumes "port_text q"
  shows "str_to_int q = Some (int (dec_val q))"
  using assms by (intro str_to_int_value) (auto simp: port_text_def is_digit_def list_all_iff)

definition address_type :: "string \<Rightarrow> flow_ip_type" where
  "address_type a = (if a \<in> lang IPv4address then ip_type_ipv4' else ip_type_ipv6')"

definition address_symbol :: "string \<Rightarrow> ruby_value" where
  "address_symbol a = (if a \<in> lang IPv4address then Sym ''ipv4'' else Sym ''ipv6'')"

end
