(* ===== verification/Outbound_Automaton.thy ===== *)
theory Outbound_Automaton
  imports Flow_Grammar
begin

text \<open>
  The scanner of ext/utils/outbound_utils.c (the \<open>-G2\<close> output for machine
  \<open>utils_outbound_udp_flow_token_parser\<close>): its blocks in the order of the file, cut into pieces
  of at most 150 source lines, and the lookup rules of each piece.
\<close>


definition flow_blocks_1 :: "flow_action rgl_block list" where
  "flow_blocks_1 =
    [Case 1 [(48, Tr 0), (49, Tr 2), (50, Tr 3), (58, Tr 5)] [(51, 57, Tr 4), (97, 102, Tr 6), (65,
       70, Tr 6)],
     Trans 0 [Start_ip] 2,
     Case 2 [(46, St 3), (58, St 28)] [(48, 57, St 25), (97, 102, St 25), (65, 70, St 25)],
     Case 3 [(48, St 4), (49, St 21), (50, St 23)] [(51, 57, St 22)],
     Case 4 [(46, St 5)] [],
     Case 5 [(48, St 6), (49, St 17), (50, St 19)] [(51, 57, St 18)],
     Case 6 [(46, St 7)] [],
     Case 7 [(48, St 8), (49, St 13), (50, St 15)] [(51, 57, St 14)],
     Case 8 [(95, Tr 24)] [],
     Trans 24 [Is_ipv4, End_ip] 9,
     Trans 92 [Is_ipv6, End_ip] 9,
     Case 9 [(48, Tr 25), (54, Tr 27)] [(55, 57, Tr 28), (49, 53, Tr 26)],
     Trans 25 [Start_port] 10]"

definition flow_blocks_2 :: "flow_action rgl_block list" where
  "flow_blocks_2 =
    [Case 10 [(48, St 11)] [(49, 57, Tr 30)],
     Case 11 [(48, St 12)] [(49, 57, Tr 32)],
     Case 12 [] [(49, 57, Tr 33)],
     Trans 33 [End_port, Finish] 182,
     Case 182 [] [],
     Trans 32 [End_port, Finish] 183,
     Case 183 [] [(48, 57, Tr 33)],
     Trans 30 [End_port, Finish] 184,
     Case 184 [] [(48, 57, Tr 32)],
     Trans 26 [Start_port, End_port, Finish] 185,
     Case 185 [] [(48, 57, Tr 188)],
     Trans 28 [Start_port, End_port, Finish] 186,
     Trans 188 [End_port, Finish] 186,
     Case 186 [] [(48, 57, Tr 30)],
     Trans 27 [Start_port, End_port, Finish] 187,
     Case 187 [(53, Tr 189)] [(54, 57, Tr 30), (48, 52, Tr 188)],
     Trans 189 [End_port, Finish] 188]"

definition flow_blocks_3 :: "flow_action rgl_block list" where
  "flow_blocks_3 =
    [Case 188 [(53, Tr 190)] [(54, 57, Tr 32), (48, 52, Tr 30)],
     Trans 190 [End_port, Finish] 189,
     Case 189 [(51, Tr 191)] [(52, 57, Tr 33), (48, 50, Tr 32)],
     Trans 191 [End_port, Finish] 190,
     Case 190 [] [(48, 53, Tr 33)],
     Case 13 [(95, Tr 24)] [(48, 57, St 14)],
     Case 14 [(95, Tr 24)] [(48, 57, St 8)],
     Case 15 [(53, St 16), (95, Tr 24)] [(54, 57, St 8), (48, 52, St 14)],
     Case 16 [(95, Tr 24)] [(48, 53, St 8)],
     Case 17 [(46, St 7)] [(48, 57, St 18)],
     Case 18 [(46, St 7)] [(48, 57, St 6)],
     Case 19 [(46, St 7), (53, St 20)] [(54, 57, St 6), (48, 52, St 18)],
     Case 20 [(46, St 7)] [(48, 53, St 6)],
     Case 21 [(46, St 5)] [(48, 57, St 22)],
     Case 22 [(46, St 5)] [(48, 57, St 4)]]"

definition flow_blocks_4 :: "flow_action rgl_block list" where
  "flow_blocks_4 =
    [Case 23 [(46, St 5), (53, St 24)] [(54, 57, St 4), (48, 52, St 22)],
     Case 24 [(46, St 5)] [(48, 53, St 4)],
     Case 25 [(58, St 28)] [(48, 57, St 26), (97, 102, St 26), (65, 70, St 26)],
     Case 26 [(58, St 28)] [(48, 57, St 27), (97, 102, St 27), (65, 70, St 27)],
     Case 27 [(58, St 28)] [],
     Case 28 [(58, St 145)] [(48, 57, St 29), (97, 102, St 29), (65, 70, St 29)],
     Case 29 [(58, St 33)] [(48, 57, St 30), (97, 102, St 30), (65, 70, St 30)],
     Case 30 [(58, St 33)] [(48, 57, St 31), (97, 102, St 31), (65, 70, St 31)],
     Case 31 [(58, St 33)] [(48, 57, St 32), (97, 102, St 32), (65, 70, St 32)],
     Case 32 [(58, St 33)] [],
     Case 33 [(58, St 131)] [(48, 57, St 34), (97, 102, St 34), (65, 70, St 34)]]"

definition flow_blocks_5 :: "flow_action rgl_block list" where
  "flow_blocks_5 =
    [Case 34 [(58, St 38)] [(48, 57, St 35), (97, 102, St 35), (65, 70, St 35)],
     Case 35 [(58, St 38)] [(48, 57, St 36), (97, 102, St 36), (65, 70, St 36)],
     Case 36 [(58, St 38)] [(48, 57, St 37), (97, 102, St 37), (65, 70, St 37)],
     Case 37 [(58, St 38)] [],
     Case 38 [(58, St 117)] [(48, 57, St 39), (97, 102, St 39), (65, 70, St 39)],
     Case 39 [(58, St 43)] [(48, 57, St 40), (97, 102, St 40), (65, 70, St 40)],
     Case 40 [(58, St 43)] [(48, 57, St 41), (97, 102, St 41), (65, 70, St 41)],
     Case 41 [(58, St 43)] [(48, 57, St 42), (97, 102, St 42), (65, 70, St 42)],
     Case 42 [(58, St 43)] [],
     Case 43 [(58, St 103)] [(48, 57, St 44), (97, 102, St 44), (65, 70, St 44)]]"

definition flow_blocks_6 :: "flow_action rgl_block list" where
  "flow_blocks_6 =
    [Case 44 [(58, St 48)] [(48, 57, St 45), (97, 102, St 45), (65, 70, St 45)],
     Case 45 [(58, St 48)] [(48, 57, St 46), (97, 102, St 46), (65, 70, St 46)],
     Case 46 [(58, St 48)] [(48, 57, St 47), (97, 102, St 47), (65, 70, St 47)],
     Case 47 [(58, St 48)] [],
     Case 48 [(58, St 89)] [(48, 57, St 49), (97, 102, St 49), (65, 70, St 49)],
     Case 49 [(58, St 53)] [(48, 57, St 50), (97, 102, St 50), (65, 70, St 50)],
     Case 50 [(58, St 53)] [(48, 57, St 51), (97, 102, St 51), (65, 70, St 51)],
     Case 51 [(58, St 53)] [(48, 57, St 52), (97, 102, St 52), (65, 70, St 52)],
     Case 52 [(58, St 53)] [],
     Case 53 [(48, St 54), (49, St 80), (50, St 83), (58, St 87)] [(51, 57, St 86), (97, 102,
       St 88), (65, 70, St 88)]]"

definition flow_blocks_7 :: "flow_action rgl_block list" where
  "flow_blocks_7 =
    [Case 54 [(46, St 55), (58, St 76)] [(48, 57, St 73), (97, 102, St 73), (65, 70, St 73)],
     Case 55 [(48, St 56), (49, St 69), (50, St 71)] [(51, 57, St 70)],
     Case 56 [(46, St 57)] [],
     Case 57 [(48, St 58), (49, St 65), (50, St 67)] [(51, 57, St 66)],
     Case 58 [(46, St 59)] [],
     Case 59 [(48, St 60), (49, St 61), (50, St 63)] [(51, 57, St 62)],
     Case 60 [(95, Tr 92)] [],
     Case 61 [(95, Tr 92)] [(48, 57, St 62)],
     Case 62 [(95, Tr 92)] [(48, 57, St 60)],
     Case 63 [(53, St 64), (95, Tr 92)] [(54, 57, St 60), (48, 52, St 62)],
     Case 64 [(95, Tr 92)] [(48, 53, St 60)],
     Case 65 [(46, St 59)] [(48, 57, St 66)],
     Case 66 [(46, St 59)] [(48, 57, St 58)],
     Case 67 [(46, St 59), (53, St 68)] [(54, 57, St 58), (48, 52, St 66)]]"

definition flow_blocks_8 :: "flow_action rgl_block list" where
  "flow_blocks_8 =
    [Case 68 [(46, St 59)] [(48, 53, St 58)],
     Case 69 [(46, St 57)] [(48, 57, St 70)],
     Case 70 [(46, St 57)] [(48, 57, St 56)],
     Case 71 [(46, St 57), (53, St 72)] [(54, 57, St 56), (48, 52, St 70)],
     Case 72 [(46, St 57)] [(48, 53, St 56)],
     Case 73 [(58, St 76)] [(48, 57, St 74), (97, 102, St 74), (65, 70, St 74)],
     Case 74 [(58, St 76)] [(48, 57, St 75), (97, 102, St 75), (65, 70, St 75)],
     Case 75 [(58, St 76)] [],
     Case 76 [(58, St 60)] [(48, 57, St 77), (97, 102, St 77), (65, 70, St 77)],
     Case 77 [(95, Tr 92)] [(48, 57, St 78), (97, 102, St 78), (65, 70, St 78)],
     Case 78 [(95, Tr 92)] [(48, 57, St 79), (97, 102, St 79), (65, 70, St 79)],
     Case 79 [(95, Tr 92)] [(48, 57, St 60), (97, 102, St 60), (65, 70, St 60)]]"

definition flow_blocks_9 :: "flow_action rgl_block list" where
  "flow_blocks_9 =
    [Case 80 [(46, St 55), (58, St 76)] [(48, 57, St 81), (97, 102, St 73), (65, 70, St 73)],
     Case 81 [(46, St 55), (58, St 76)] [(48, 57, St 82), (97, 102, St 74), (65, 70, St 74)],
     Case 82 [(46, St 55), (58, St 76)] [(48, 57, St 75), (97, 102, St 75), (65, 70, St 75)],
     Case 83 [(46, St 55), (53, St 84), (58, St 76)] [(48, 52, St 81), (97, 102, St 73), (65, 70,
       St 73), (54, 57, St 85)],
     Case 84 [(46, St 55), (58, St 76)] [(48, 53, St 82), (97, 102, St 74), (65, 70, St 74), (54,
       57, St 74)],
     Case 85 [(46, St 55), (58, St 76)] [(48, 57, St 74), (97, 102, St 74), (65, 70, St 74)],
     Case 86 [(46, St 55), (58, St 76)] [(48, 57, St 85), (97, 102, St 73), (65, 70, St 73)],
     Case 87 [(95, Tr 92)] [(48, 57, St 77), (97, 102, St 77), (65, 70, St 77)]]"

definition flow_blocks_10 :: "flow_action rgl_block list" where
  "flow_blocks_10 =
    [Case 88 [(58, St 76)] [(48, 57, St 73), (97, 102, St 73), (65, 70, St 73)],
     Case 89 [(48, St 90), (49, St 95), (50, St 98), (95, Tr 92)] [(51, 57, St 101), (97, 102,
       St 102), (65, 70, St 102)],
     Case 90 [(46, St 55), (58, St 94), (95, Tr 92)] [(48, 57, St 91), (97, 102, St 91), (65, 70, St 91)],
     Case 91 [(58, St 94), (95, Tr 92)] [(48, 57, St 92), (97, 102, St 92), (65, 70, St 92)],
     Case 92 [(58, St 94), (95, Tr 92)] [(48, 57, St 93), (97, 102, St 93), (65, 70, St 93)],
     Case 93 [(58, St 94), (95, Tr 92)] [],
     Case 94 [] [(48, 57, St 77), (97, 102, St 77), (65, 70, St 77)],
     Case 95 [(46, St 55), (58, St 94), (95, Tr 92)] [(48, 57, St 96), (97, 102, St 91), (65, 70, St 91)],
     Case 96 [(46, St 55), (58, St 94), (95, Tr 92)] [(48, 57, St 97), (97, 102, St 92), (65, 70, St 92)]]"

definition flow_blocks_11 :: "flow_action rgl_block list" where
  "flow_blocks_11 =
    [Case 97 [(46, St 55), (58, St 94), (95, Tr 92)] [(48, 57, St 93), (97, 102, St 93), (65, 70, St 93)],
     Case 98 [(46, St 55), (53, St 99), (58, St 94), (95, Tr 92)] [(48, 52, St 96), (97, 102,
       St 91), (65, 70, St 91), (54, 57, St 100)],
     Case 99 [(46, St 55), (58, St 94), (95, Tr 92)] [(48, 53, St 97), (97, 102, St 92), (65, 70,
       St 92), (54, 57, St 92)],
     Case 100 [(46, St 55), (58, St 94), (95, Tr 92)] [(48, 57, St 92), (97, 102, St 92), (65, 70,
       St 92)],
     Case 101 [(46, St 55), (58, St 94), (95, Tr 92)] [(48, 57, St 100), (97, 102, St 91), (65, 70,
       St 91)],
     Case 102 [(58, St 94), (95, Tr 92)] [(48, 57, St 91), (97, 102, St 91), (65, 70, St 91)],
     Case 103 [(48, St 104), (49, St 109), (50, St 112), (95, Tr 92)] [(51, 57, St 115), (97, 102,
       St 116), (65, 70, St 116)]]"

definition flow_blocks_12 :: "flow_action rgl_block list" where
  "flow_blocks_12 =
    [Case 104 [(46, St 55), (58, St 108), (95, Tr 92)] [(48, 57, St 105), (97, 102, St 105), (65,
       70, St 105)],
     Case 105 [(58, St 108), (95, Tr 92)] [(48, 57, St 106), (97, 102, St 106), (65, 70, St 106)],
     Case 106 [(58, St 108), (95, Tr 92)] [(48, 57, St 107), (97, 102, St 107), (65, 70, St 107)],
     Case 107 [(58, St 108), (95, Tr 92)] [],
     Case 108 [(48, St 90), (49, St 95), (50, St 98)] [(51, 57, St 101), (97, 102, St 102), (65,
       70, St 102)],
     Case 109 [(46, St 55), (58, St 108), (95, Tr 92)] [(48, 57, St 110), (97, 102, St 105), (65,
       70, St 105)],
     Case 110 [(46, St 55), (58, St 108), (95, Tr 92)] [(48, 57, St 111), (97, 102, St 106), (65,
       70, St 106)],
     Case 111 [(46, St 55), (58, St 108), (95, Tr 92)] [(48, 57, St 107), (97, 102, St 107), (65,
       70, St 107)]]"

definition flow_blocks_13 :: "flow_action rgl_block list" where
  "flow_blocks_13 =
    [Case 112 [(46, St 55), (53, St 113), (58, St 108), (95, Tr 92)] [(48, 52, St 110), (97, 102,
       St 105), (65, 70, St 105), (54, 57, St 114)],
     Case 113 [(46, St 55), (58, St 108), (95, Tr 92)] [(48, 53, St 111), (97, 102, St 106), (65,
       70, St 106), (54, 57, St 106)],
     Case 114 [(46, St 55), (58, St 108), (95, Tr 92)] [(48, 57, St 106), (97, 102, St 106), (65,
       70, St 106)],
     Case 115 [(46, St 55), (58, St 108), (95, Tr 92)] [(48, 57, St 114), (97, 102, St 105), (65,
       70, St 105)],
     Case 116 [(58, St 108), (95, Tr 92)] [(48, 57, St 105), (97, 102, St 105), (65, 70, St 105)],
     Case 117 [(48, St 118), (49, St 123), (50, St 126), (95, Tr 92)] [(51, 57, St 129), (97, 102,
       St 130), (65, 70, St 130)],
     Case 118 [(46, St 55), (58, St 122), (95, Tr 92)] [(48, 57, St 119), (97, 102, St 119), (65,
       70, St 119)]]"

definition flow_blocks_14 :: "flow_action rgl_block list" where
  "flow_blocks_14 =
    [Case 119 [(58, St 122), (95, Tr 92)] [(48, 57, St 120), (97, 102, St 120), (65, 70, St 120)],
     Case 120 [(58, St 122), (95, Tr 92)] [(48, 57, St 121), (97, 102, St 121), (65, 70, St 121)],
     Case 121 [(58, St 122), (95, Tr 92)] [],
     Case 122 [(48, St 104), (49, St 109), (50, St 112)] [(51, 57, St 115), (97, 102, St 116), (65,
       70, St 116)],
     Case 123 [(46, St 55), (58, St 122), (95, Tr 92)] [(48, 57, St 124), (97, 102, St 119), (65,
       70, St 119)],
     Case 124 [(46, St 55), (58, St 122), (95, Tr 92)] [(48, 57, St 125), (97, 102, St 120), (65,
       70, St 120)],
     Case 125 [(46, St 55), (58, St 122), (95, Tr 92)] [(48, 57, St 121), (97, 102, St 121), (65,
       70, St 121)],
     Case 126 [(46, St 55), (53, St 127), (58, St 122), (95, Tr 92)] [(48, 52, St 124), (97, 102,
       St 119), (65, 70, St 119), (54, 57, St 128)]]"

definition flow_blocks_15 :: "flow_action rgl_block list" where
  "flow_blocks_15 =
    [Case 127 [(46, St 55), (58, St 122), (95, Tr 92)] [(48, 53, St 125), (97, 102, St 120), (65,
       70, St 120), (54, 57, St 120)],
     Case 128 [(46, St 55), (58, St 122), (95, Tr 92)] [(48, 57, St 120), (97, 102, St 120), (65,
       70, St 120)],
     Case 129 [(46, St 55), (58, St 122), (95, Tr 92)] [(48, 57, St 128), (97, 102, St 119), (65,
       70, St 119)],
     Case 130 [(58, St 122), (95, Tr 92)] [(48, 57, St 119), (97, 102, St 119), (65, 70, St 119)],
     Case 131 [(48, St 132), (49, St 137), (50, St 140), (95, Tr 92)] [(51, 57, St 143), (97, 102,
       St 144), (65, 70, St 144)],
     Case 132 [(46, St 55), (58, St 136), (95, Tr 92)] [(48, 57, St 133), (97, 102, St 133), (65,
       70, St 133)],
     Case 133 [(58, St 136), (95, Tr 92)] [(48, 57, St 134), (97, 102, St 134), (65, 70, St 134)],
     Case 134 [(58, St 136), (95, Tr 92)] [(48, 57, St 135), (97, 102, St 135), (65, 70, St 135)]]"

definition flow_blocks_16 :: "flow_action rgl_block list" where
  "flow_blocks_16 =
    [Case 135 [(58, St 136), (95, Tr 92)] [],
     Case 136 [(48, St 118), (49, St 123), (50, St 126)] [(51, 57, St 129), (97, 102, St 130), (65,
       70, St 130)],
     Case 137 [(46, St 55), (58, St 136), (95, Tr 92)] [(48, 57, St 138), (97, 102, St 133), (65,
       70, St 133)],
     Case 138 [(46, St 55), (58, St 136), (95, Tr 92)] [(48, 57, St 139), (97, 102, St 134), (65,
       70, St 134)],
     Case 139 [(46, St 55), (58, St 136), (95, Tr 92)] [(48, 57, St 135), (97, 102, St 135), (65,
       70, St 135)],
     Case 140 [(46, St 55), (53, St 141), (58, St 136), (95, Tr 92)] [(48, 52, St 138), (97, 102,
       St 133), (65, 70, St 133), (54, 57, St 142)],
     Case 141 [(46, St 55), (58, St 136), (95, Tr 92)] [(48, 53, St 139), (97, 102, St 134), (65,
       70, St 134), (54, 57, St 134)],
     Case 142 [(46, St 55), (58, St 136), (95, Tr 92)] [(48, 57, St 134), (97, 102, St 134), (65,
       70, St 134)]]"

definition flow_blocks_17 :: "flow_action rgl_block list" where
  "flow_blocks_17 =
    [Case 143 [(46, St 55), (58, St 136), (95, Tr 92)] [(48, 57, St 142), (97, 102, St 133), (65,
       70, St 133)],
     Case 144 [(58, St 136), (95, Tr 92)] [(48, 57, St 133), (97, 102, St 133), (65, 70, St 133)],
     Case 145 [(48, St 146), (49, St 151), (50, St 154), (95, Tr 92)] [(51, 57, St 157), (97, 102,
       St 158), (65, 70, St 158)],
     Case 146 [(46, St 55), (58, St 150), (95, Tr 92)] [(48, 57, St 147), (97, 102, St 147), (65,
       70, St 147)],
     Case 147 [(58, St 150), (95, Tr 92)] [(48, 57, St 148), (97, 102, St 148), (65, 70, St 148)],
     Case 148 [(58, St 150), (95, Tr 92)] [(48, 57, St 149), (97, 102, St 149), (65, 70, St 149)],
     Case 149 [(58, St 150), (95, Tr 92)] [],
     Case 150 [(48, St 132), (49, St 137), (50, St 140)] [(51, 57, St 143), (97, 102, St 144), (65,
       70, St 144)]]"

definition flow_blocks_18 :: "flow_action rgl_block list" where
  "flow_blocks_18 =
    [Case 151 [(46, St 55), (58, St 150), (95, Tr 92)] [(48, 57, St 152), (97, 102, St 147), (65,
       70, St 147)],
     Case 152 [(46, St 55), (58, St 150), (95, Tr 92)] [(48, 57, St 153), (97, 102, St 148), (65,
       70, St 148)],
     Case 153 [(46, St 55), (58, St 150), (95, Tr 92)] [(48, 57, St 149), (97, 102, St 149), (65,
       70, St 149)],
     Case 154 [(46, St 55), (53, St 155), (58, St 150), (95, Tr 92)] [(48, 52, St 152), (97, 102,
       St 147), (65, 70, St 147), (54, 57, St 156)],
     Case 155 [(46, St 55), (58, St 150), (95, Tr 92)] [(48, 53, St 153), (97, 102, St 148), (65,
       70, St 148), (54, 57, St 148)],
     Case 156 [(46, St 55), (58, St 150), (95, Tr 92)] [(48, 57, St 148), (97, 102, St 148), (65,
       70, St 148)],
     Case 157 [(46, St 55), (58, St 150), (95, Tr 92)] [(48, 57, St 156), (97, 102, St 147), (65,
       70, St 147)]]"

definition flow_blocks_19 :: "flow_action rgl_block list" where
  "flow_blocks_19 =
    [Case 158 [(58, St 150), (95, Tr 92)] [(48, 57, St 147), (97, 102, St 147), (65, 70, St 147)],
     Trans 2 [Start_ip] 159,
     Case 159 [(46, St 3), (58, St 28)] [(48, 57, St 160), (97, 102, St 25), (65, 70, St 25)],
     Case 160 [(46, St 3), (58, St 28)] [(48, 57, St 161), (97, 102, St 26), (65, 70, St 26)],
     Case 161 [(46, St 3), (58, St 28)] [(48, 57, St 27), (97, 102, St 27), (65, 70, St 27)],
     Trans 3 [Start_ip] 162,
     Case 162 [(46, St 3), (53, St 163), (58, St 28)] [(48, 52, St 160), (97, 102, St 25), (65, 70,
       St 25), (54, 57, St 164)],
     Case 163 [(46, St 3), (58, St 28)] [(48, 53, St 161), (97, 102, St 26), (65, 70, St 26), (54,
       57, St 26)],
     Case 164 [(46, St 3), (58, St 28)] [(48, 57, St 26), (97, 102, St 26), (65, 70, St 26)],
     Trans 4 [Start_ip] 165]"

definition flow_blocks_20 :: "flow_action rgl_block list" where
  "flow_blocks_20 =
    [Case 165 [(46, St 3), (58, St 28)] [(48, 57, St 164), (97, 102, St 25), (65, 70, St 25)],
     Trans 5 [Start_ip] 166,
     Case 166 [(58, St 167)] [],
     Case 167 [(48, St 168), (49, St 173), (50, St 176), (95, Tr 92)] [(51, 57, St 179), (97, 102,
       St 180), (65, 70, St 180)],
     Case 168 [(46, St 55), (58, St 172), (95, Tr 92)] [(48, 57, St 169), (97, 102, St 169), (65,
       70, St 169)],
     Case 169 [(58, St 172), (95, Tr 92)] [(48, 57, St 170), (97, 102, St 170), (65, 70, St 170)],
     Case 170 [(58, St 172), (95, Tr 92)] [(48, 57, St 171), (97, 102, St 171), (65, 70, St 171)],
     Case 171 [(58, St 172), (95, Tr 92)] [],
     Case 172 [(48, St 146), (49, St 151), (50, St 154)] [(51, 57, St 157), (97, 102, St 158), (65,
       70, St 158)],
     Case 173 [(46, St 55), (58, St 172), (95, Tr 92)] [(48, 57, St 174), (97, 102, St 169), (65,
       70, St 169)]]"

definition flow_blocks_21 :: "flow_action rgl_block list" where
  "flow_blocks_21 =
    [Case 174 [(46, St 55), (58, St 172), (95, Tr 92)] [(48, 57, St 175), (97, 102, St 170), (65,
       70, St 170)],
     Case 175 [(46, St 55), (58, St 172), (95, Tr 92)] [(48, 57, St 171), (97, 102, St 171), (65,
       70, St 171)],
     Case 176 [(46, St 55), (53, St 177), (58, St 172), (95, Tr 92)] [(48, 52, St 174), (97, 102,
       St 169), (65, 70, St 169), (54, 57, St 178)],
     Case 177 [(46, St 55), (58, St 172), (95, Tr 92)] [(48, 53, St 175), (97, 102, St 170), (65,
       70, St 170), (54, 57, St 170)],
     Case 178 [(46, St 55), (58, St 172), (95, Tr 92)] [(48, 57, St 170), (97, 102, St 170), (65,
       70, St 170)],
     Case 179 [(46, St 55), (58, St 172), (95, Tr 92)] [(48, 57, St 178), (97, 102, St 169), (65,
       70, St 169)],
     Case 180 [(58, St 172), (95, Tr 92)] [(48, 57, St 169), (97, 102, St 169), (65, 70, St 169)],
     Trans 6 [Start_ip] 181]"

definition flow_blocks_22 :: "flow_action rgl_block list" where
  "flow_blocks_22 =
    [Case 181 [(58, St 28)] [(48, 57, St 25), (97, 102, St 25), (65, 70, St 25)]]"

definition flow_blocks :: "flow_action rgl_block list" where
  "flow_blocks =
     flow_blocks_1 @ flow_blocks_2 @ flow_blocks_3 @ flow_blocks_4 @ flow_blocks_5 @
     flow_blocks_6 @ flow_blocks_7 @ flow_blocks_8 @ flow_blocks_9 @ flow_blocks_10 @
     flow_blocks_11 @ flow_blocks_12 @ flow_blocks_13 @ flow_blocks_14 @ flow_blocks_15 @
     flow_blocks_16 @ flow_blocks_17 @ flow_blocks_18 @ flow_blocks_19 @ flow_blocks_20 @
     flow_blocks_21 @ flow_blocks_22"

lemmas flow_blocks_1_case = arg_cong [where f = "\<lambda>p. rgl_case p s" for s, OF flow_blocks_1_def, unfolded rgl_case.simps]

lemmas flow_blocks_1_trans = arg_cong [where f = "\<lambda>p. rgl_trans p s" for s, OF flow_blocks_1_def, unfolded rgl_trans.simps]

lemmas flow_blocks_2_case = arg_cong [where f = "\<lambda>p. rgl_case p s" for s, OF flow_blocks_2_def, unfolded rgl_case.simps]

lemmas flow_blocks_2_trans = arg_cong [where f = "\<lambda>p. rgl_trans p s" for s, OF flow_blocks_2_def, unfolded rgl_trans.simps]

lemmas flow_blocks_3_case = arg_cong [where f = "\<lambda>p. rgl_case p s" for s, OF flow_blocks_3_def, unfolded rgl_case.simps]

lemmas flow_blocks_3_trans = arg_cong [where f = "\<lambda>p. rgl_trans p s" for s, OF flow_blocks_3_def, unfolded rgl_trans.simps]

lemmas flow_blocks_4_case = arg_cong [where f = "\<lambda>p. rgl_case p s" for s, OF flow_blocks_4_def, unfolded rgl_case.simps]

lemmas flow_blocks_4_trans = arg_cong [where f = "\<lambda>p. rgl_trans p s" for s, OF flow_blocks_4_def, unfolded rgl_trans.simps]

lemmas flow_blocks_5_case = arg_cong [where f = "\<lambda>p. rgl_case p s" for s, OF flow_blocks_5_def, unfolded rgl_case.simps]

lemmas flow_blocks_5_trans = arg_cong [where f = "\<lambda>p. rgl_trans p s" for s, OF flow_blocks_5_def, unfolded rgl_trans.simps]

lemmas flow_blocks_6_case = arg_cong [where f = "\<lambda>p. rgl_case p s" for s, OF flow_blocks_6_def, unfolded rgl_case.simps]

lemmas flow_blocks_6_trans = arg_cong [where f = "\<lambda>p. rgl_trans p s" for s, OF flow_blocks_6_def, unfolded rgl_trans.simps]

lemmas flow_blocks_7_case = arg_cong [where f = "\<lambda>p. rgl_case p s" for s, OF flow_blocks_7_def, unfolded rgl_case.simps]

lemmas flow_blocks_7_trans = arg_cong [where f = "\<lambda>p. rgl_trans p s" for s, OF flow_blocks_7_def, unfolded rgl_trans.simps]

lemmas flow_blocks_8_case = arg_cong [where f = "\<lambda>p. rgl_case p s" for s, OF flow_blocks_8_def, unfolded rgl_case.simps]

lemmas flow_blocks_8_trans = arg_cong [where f = "\<lambda>p. rgl_trans p s" for s, OF flow_blocks_8_def, unfolded rgl_trans.simps]

lemmas flow_blocks_9_case = arg_cong [where f = "\<lambda>p. rgl_case p s" for s, OF flow_blocks_9_def, unfolded rgl_case.simps]

lemmas flow_blocks_9_trans = arg_cong [where f = "\<lambda>p. rgl_trans p s" for s, OF flow_blocks_9_def, unfolded rgl_trans.simps]

lemmas flow_blocks_10_case = arg_cong [where f = "\<lambda>p. rgl_case p s" for s, OF flow_blocks_10_def, unfolded rgl_case.simps]

lemmas flow_blocks_10_trans = arg_cong [where f = "\<lambda>p. rgl_trans p s" for s, OF flow_blocks_10_def, unfolded rgl_trans.simps]

lemmas flow_blocks_11_case = arg_cong [where f = "\<lambda>p. rgl_case p s" for s, OF flow_blocks_11_def, unfolded rgl_case.simps]

lemmas flow_blocks_11_trans = arg_cong [where f = "\<lambda>p. rgl_trans p s" for s, OF flow_blocks_11_def, unfolded rgl_trans.simps]

lemmas flow_blocks_12_case = arg_cong [where f = "\<lambda>p. rgl_case p s" for s, OF flow_blocks_12_def, unfolded rgl_case.simps]

lemmas flow_blocks_12_trans = arg_cong [where f = "\<lambda>p. rgl_trans p s" for s, OF flow_blocks_12_def, unfolded rgl_trans.simps]

lemmas flow_blocks_13_case = arg_cong [where f = "\<lambda>p. rgl_case p s" for s, OF flow_blocks_13_def, unfolded rgl_case.simps]

lemmas flow_blocks_13_trans = arg_cong [where f = "\<lambda>p. rgl_trans p s" for s, OF flow_blocks_13_def, unfolded rgl_trans.simps]

lemmas flow_blocks_14_case = arg_cong [where f = "\<lambda>p. rgl_case p s" for s, OF flow_blocks_14_def, unfolded rgl_case.simps]

lemmas flow_blocks_14_trans = arg_cong [where f = "\<lambda>p. rgl_trans p s" for s, OF flow_blocks_14_def, unfolded rgl_trans.simps]

lemmas flow_blocks_15_case = arg_cong [where f = "\<lambda>p. rgl_case p s" for s, OF flow_blocks_15_def, unfolded rgl_case.simps]

lemmas flow_blocks_15_trans = arg_cong [where f = "\<lambda>p. rgl_trans p s" for s, OF flow_blocks_15_def, unfolded rgl_trans.simps]

lemmas flow_blocks_16_case = arg_cong [where f = "\<lambda>p. rgl_case p s" for s, OF flow_blocks_16_def, unfolded rgl_case.simps]

lemmas flow_blocks_16_trans = arg_cong [where f = "\<lambda>p. rgl_trans p s" for s, OF flow_blocks_16_def, unfolded rgl_trans.simps]

lemmas flow_blocks_17_case = arg_cong [where f = "\<lambda>p. rgl_case p s" for s, OF flow_blocks_17_def, unfolded rgl_case.simps]

lemmas flow_blocks_17_trans = arg_cong [where f = "\<lambda>p. rgl_trans p s" for s, OF flow_blocks_17_def, unfolded rgl_trans.simps]

lemmas flow_blocks_18_case = arg_cong [where f = "\<lambda>p. rgl_case p s" for s, OF flow_blocks_18_def, unfolded rgl_case.simps]

lemmas flow_blocks_18_trans = arg_cong [where f = "\<lambda>p. rgl_trans p s" for s, OF flow_blocks_18_def, unfolded rgl_trans.simps]

lemmas flow_blocks_19_case = arg_cong [where f = "\<lambda>p. rgl_case p s" for s, OF flow_blocks_19_def, unfolded rgl_case.simps]

lemmas flow_blocks_19_trans = arg_cong [where f = "\<lambda>p. rgl_trans p s" for s, OF flow_blocks_19_def, unfolded rgl_trans.simps]

lemmas flow_blocks_20_case = arg_cong [where f = "\<lambda>p. rgl_case p s" for s, OF flow_blocks_20_def, unfolded rgl_case.simps]

lemmas flow_blocks_20_trans = arg_cong [where f = "\<lambda>p. rgl_trans p s" for s, OF flow_blocks_20_def, unfolded rgl_trans.simps]

lemmas flow_blocks_21_case = arg_cong [where f = "\<lambda>p. rgl_case p s" for s, OF flow_blocks_21_def, unfolded rgl_case.simps]

lemmas flow_blocks_21_trans = arg_cong [where f = "\<lambda>p. rgl_trans p s" for s, OF flow_blocks_21_def, unfolded rgl_trans.simps]

lemmas flow_blocks_22_case = arg_cong [where f = "\<lambda>p. rgl_case p s" for s, OF flow_blocks_22_def, unfolded rgl_case.simps]

lemmas flow_blocks_22_trans = arg_cong [where f = "\<lambda>p. rgl_trans p s" for s, OF flow_blocks_22_def, unfolded rgl_trans.simps]

lemmas flow_blocks_case =
  arg_cong [where f = "\<lambda>p. rgl_case p s" for s, OF flow_blocks_def, unfolded rgl_case_append]
  flow_blocks_1_case flow_blocks_2_case flow_blocks_3_case flow_blocks_4_case flow_blocks_5_case
  flow_blocks_6_case flow_blocks_7_case flow_blocks_8_case flow_blocks_9_case flow_blocks_10_case
  flow_blocks_11_case flow_blocks_12_case flow_blocks_13_case flow_blocks_14_case
  flow_blocks_15_case flow_blocks_16_case flow_blocks_17_case flow_blocks_18_case
  flow_blocks_19_case flow_blocks_20_case flow_blocks_21_case flow_blocks_22_case

lemmas flow_blocks_trans =
  arg_cong [where f = "\<lambda>p. rgl_trans p s" for s, OF flow_blocks_def, unfolded rgl_trans_append]
  flow_blocks_1_trans flow_blocks_2_trans flow_blocks_3_trans flow_blocks_4_trans
  flow_blocks_5_trans flow_blocks_6_trans flow_blocks_7_trans flow_blocks_8_trans
  flow_blocks_9_trans flow_blocks_10_trans flow_blocks_11_trans flow_blocks_12_trans
  flow_blocks_13_trans flow_blocks_14_trans flow_blocks_15_trans flow_blocks_16_trans
  flow_blocks_17_trans flow_blocks_18_trans flow_blocks_19_trans flow_blocks_20_trans
  flow_blocks_21_trans flow_blocks_22_trans

end
