(* ===== verification/Outbound_Certificate.thy ===== *)
theory Outbound_Certificate
  imports Outbound_Automaton
begin

text \<open>
  The certificate for the scanner of ext/utils/outbound_utils.c: what the flow token and the
  prefixes that run its actions still expect in each state, and the check of every row.
\<close>


definition flow_expects_1 :: certificate where
  "flow_expects_1 s =
     (if s = 1 then ([-128, 48, 49, 50, 51, 58, 59, 65, 71, 97, 103], [[[[Cat IPv4address (Ch 95
        95)]], [[Cat IPv6address (Ch 95 95)]], [[Cat IPaddress flow_port]], [[Eps]]]])
      else
      if s = 2 then ([-128, 46, 47, 48, 58, 59, 65, 71, 97, 103], [[[[Cat (Ch 46 46) (Cat
        dec_octet (Cat (Ch 46 46) (Cat dec_octet (Cat (Ch 46 46) dec_octet)))), Ch 95 95]], [[Rep
        0 3 HEXDIG, Ch 58 58, Rep 5 5 h16_colon, ls32, Ch 95 95], [Rep 0 3 HEXDIG, Cat dcolon (Cat
        (Rep 4 4 h16_colon) ls32), Ch 95 95], [Rep 0 3 HEXDIG, Cat dcolon (Cat (Rep 3 3 h16_colon)
        ls32), Ch 95 95], [Rep 0 3 HEXDIG, Ch 58 58, h16, Cat dcolon (Cat (Rep 3 3 h16_colon)
        ls32), Ch 95 95], [Rep 0 3 HEXDIG, Cat dcolon (Cat (Rep 2 2 h16_colon) ls32), Ch 95 95],
        [Rep 0 3 HEXDIG, Ch 58 58, Rep 0 1 h16_colon, h16, Cat dcolon (Cat (Rep 2 2 h16_colon)
        ls32), Ch 95 95], [Rep 0 3 HEXDIG, Cat dcolon (Cat h16_colon ls32), Ch 95 95], [Rep 0 3
        HEXDIG, Ch 58 58, Rep 0 2 h16_colon, h16, Cat dcolon (Cat h16_colon ls32), Ch 95 95], [Rep
        0 3 HEXDIG, Cat dcolon ls32, Ch 95 95], [Rep 0 3 HEXDIG, Ch 58 58, Rep 0 3 h16_colon, h16,
        Cat dcolon ls32, Ch 95 95], [Rep 0 3 HEXDIG, Cat dcolon h16, Ch 95 95], [Rep 0 3 HEXDIG,
        Ch 58 58, Rep 0 4 h16_colon, h16, Cat dcolon h16, Ch 95 95], [Rep 0 3 HEXDIG, dcolon, Ch
        95 95], [Rep 0 3 HEXDIG, Ch 58 58, Rep 0 5 h16_colon, h16, dcolon, Ch 95 95]], [[Cat (Ch
        46 46) (Cat dec_octet (Cat (Ch 46 46) (Cat dec_octet (Cat (Ch 46 46) dec_octet)))),
        flow_port], [Rep 0 3 HEXDIG, Ch 58 58, Rep 5 5 h16_colon, ls32, flow_port], [Rep 0 3
        HEXDIG, Cat dcolon (Cat (Rep 4 4 h16_colon) ls32), flow_port], [Rep 0 3 HEXDIG, Cat dcolon
        (Cat (Rep 3 3 h16_colon) ls32), flow_port], [Rep 0 3 HEXDIG, Ch 58 58, h16, Cat dcolon
        (Cat (Rep 3 3 h16_colon) ls32), flow_port], [Rep 0 3 HEXDIG, Cat dcolon (Cat (Rep 2 2
        h16_colon) ls32), flow_port], [Rep 0 3 HEXDIG, Ch 58 58, Rep 0 1 h16_colon, h16, Cat
        dcolon (Cat (Rep 2 2 h16_colon) ls32), flow_port], [Rep 0 3 HEXDIG, Cat dcolon (Cat
        h16_colon ls32), flow_port], [Rep 0 3 HEXDIG, Ch 58 58, Rep 0 2 h16_colon, h16, Cat dcolon
        (Cat h16_colon ls32), flow_port], [Rep 0 3 HEXDIG, Cat dcolon ls32, flow_port], [Rep 0 3
        HEXDIG, Ch 58 58, Rep 0 3 h16_colon, h16, Cat dcolon ls32, flow_port], [Rep 0 3 HEXDIG,
        Cat dcolon h16, flow_port], [Rep 0 3 HEXDIG, Ch 58 58, Rep 0 4 h16_colon, h16, Cat dcolon
        h16, flow_port], [Rep 0 3 HEXDIG, dcolon, flow_port], [Rep 0 3 HEXDIG, Ch 58 58, Rep 0 5
        h16_colon, h16, dcolon, flow_port]], []]])
      else
      if s = 3 then ([-128, 48, 49, 50, 51, 58], [[[[Cat dec_octet (Cat (Ch 46 46) (Cat dec_octet
        (Cat (Ch 46 46) dec_octet))), Ch 95 95]], [], [[Cat dec_octet (Cat (Ch 46 46) (Cat
        dec_octet (Cat (Ch 46 46) dec_octet))), flow_port]], []]])
      else
      if s = 4 then ([-128, 46, 47], [[[[Cat (Ch 46 46) (Cat dec_octet (Cat (Ch 46 46)
        dec_octet)), Ch 95 95]], [], [[Cat (Ch 46 46) (Cat dec_octet (Cat (Ch 46 46) dec_octet)),
        flow_port]], []]])
      else
      if s = 5 then ([-128, 48, 49, 50, 51, 58], [[[[Cat dec_octet (Cat (Ch 46 46) dec_octet), Ch
        95 95]], [], [[Cat dec_octet (Cat (Ch 46 46) dec_octet), flow_port]], []]])
      else
      if s = 6 then ([-128, 46, 47], [[[[Cat (Ch 46 46) dec_octet, Ch 95 95]], [], [[Cat (Ch 46
        46) dec_octet, flow_port]], []]])
      else
      if s = 7 then ([-128, 48, 49, 50, 51, 58], [[[[dec_octet, Ch 95 95]], [], [[dec_octet,
        flow_port]], []]])
      else
      if s = 8 then ([-128, 95, 96], [[[[Ch 95 95]], [], [[flow_port]], []]])
      else
      if s = 9 then ([-128, 48, 49, 54, 55, 58], [[[], [[]], [[port]], []], [[[]], [], [[port]],
        []]])
      else
      if s = 10 then ([-128, 48, 49, 58], [[[], [], [[Cat (Ch 49 57) (Rep 0 2 DIGIT)], [Cat (Ch 48
        48) (Cat (Ch 49 57) (Rep 0 1 DIGIT))], [Cat (Ch 48 48) (Cat (Ch 48 48) (Ch 49 57))]],
        []]])
      else
      if s = 11 then ([-128, 48, 49, 58], [[[], [], [[Cat (Ch 49 57) (Rep 0 1 DIGIT)], [Cat (Ch 48
        48) (Ch 49 57)]], []]])
      else
      ([-128, 49, 58], [[[], [], [[Ch 49 57]], []]]))"

definition flow_expects_2 :: certificate where
  "flow_expects_2 s =
     (if s = 13 then ([-128, 48, 58, 95, 96], [[[[Ch 95 95], [DIGIT, Ch 95 95], [Rep 2 2 DIGIT, Ch
        95 95]], [], [[flow_port], [DIGIT, flow_port], [Rep 2 2 DIGIT, flow_port]], []]])
      else
      if s = 14 then ([-128, 48, 58, 95, 96], [[[[Ch 95 95], [DIGIT, Ch 95 95]], [], [[flow_port],
        [DIGIT, flow_port]], []]])
      else
      if s = 15 then ([-128, 48, 53, 54, 58, 95, 96], [[[[Ch 95 95], [DIGIT, Ch 95 95], [Cat (Ch
        48 52) DIGIT, Ch 95 95], [Cat (Ch 53 53) (Ch 48 53), Ch 95 95]], [], [[flow_port], [DIGIT,
        flow_port], [Cat (Ch 48 52) DIGIT, flow_port], [Cat (Ch 53 53) (Ch 48 53), flow_port]],
        []]])
      else
      if s = 16 then ([-128, 48, 54, 95, 96], [[[[Ch 95 95], [Ch 48 53, Ch 95 95]], [],
        [[flow_port], [Ch 48 53, flow_port]], []]])
      else
      if s = 17 then ([-128, 46, 47, 48, 58], [[[[Cat (Ch 46 46) dec_octet, Ch 95 95], [DIGIT, Cat
        (Ch 46 46) dec_octet, Ch 95 95], [Rep 2 2 DIGIT, Cat (Ch 46 46) dec_octet, Ch 95 95]], [],
        [[Cat (Ch 46 46) dec_octet, flow_port], [DIGIT, Cat (Ch 46 46) dec_octet, flow_port], [Rep
        2 2 DIGIT, Cat (Ch 46 46) dec_octet, flow_port]], []]])
      else
      if s = 18 then ([-128, 46, 47, 48, 58], [[[[Cat (Ch 46 46) dec_octet, Ch 95 95], [DIGIT, Cat
        (Ch 46 46) dec_octet, Ch 95 95]], [], [[Cat (Ch 46 46) dec_octet, flow_port], [DIGIT, Cat
        (Ch 46 46) dec_octet, flow_port]], []]])
      else
      if s = 19 then ([-128, 46, 47, 48, 53, 54, 58], [[[[Cat (Ch 46 46) dec_octet, Ch 95 95],
        [DIGIT, Cat (Ch 46 46) dec_octet, Ch 95 95], [Cat (Ch 48 52) DIGIT, Cat (Ch 46 46)
        dec_octet, Ch 95 95], [Cat (Ch 53 53) (Ch 48 53), Cat (Ch 46 46) dec_octet, Ch 95 95]],
        [], [[Cat (Ch 46 46) dec_octet, flow_port], [DIGIT, Cat (Ch 46 46) dec_octet, flow_port],
        [Cat (Ch 48 52) DIGIT, Cat (Ch 46 46) dec_octet, flow_port], [Cat (Ch 53 53) (Ch 48 53),
        Cat (Ch 46 46) dec_octet, flow_port]], []]])
      else
      if s = 20 then ([-128, 46, 47, 48, 54], [[[[Cat (Ch 46 46) dec_octet, Ch 95 95], [Ch 48 53,
        Cat (Ch 46 46) dec_octet, Ch 95 95]], [], [[Cat (Ch 46 46) dec_octet, flow_port], [Ch 48
        53, Cat (Ch 46 46) dec_octet, flow_port]], []]])
      else
      if s = 21 then ([-128, 46, 47, 48, 58], [[[[Cat (Ch 46 46) (Cat dec_octet (Cat (Ch 46 46)
        dec_octet)), Ch 95 95], [DIGIT, Cat (Ch 46 46) (Cat dec_octet (Cat (Ch 46 46) dec_octet)),
        Ch 95 95], [Rep 2 2 DIGIT, Cat (Ch 46 46) (Cat dec_octet (Cat (Ch 46 46) dec_octet)), Ch
        95 95]], [], [[Cat (Ch 46 46) (Cat dec_octet (Cat (Ch 46 46) dec_octet)), flow_port],
        [DIGIT, Cat (Ch 46 46) (Cat dec_octet (Cat (Ch 46 46) dec_octet)), flow_port], [Rep 2 2
        DIGIT, Cat (Ch 46 46) (Cat dec_octet (Cat (Ch 46 46) dec_octet)), flow_port]], []]])
      else
      if s = 22 then ([-128, 46, 47, 48, 58], [[[[Cat (Ch 46 46) (Cat dec_octet (Cat (Ch 46 46)
        dec_octet)), Ch 95 95], [DIGIT, Cat (Ch 46 46) (Cat dec_octet (Cat (Ch 46 46) dec_octet)),
        Ch 95 95]], [], [[Cat (Ch 46 46) (Cat dec_octet (Cat (Ch 46 46) dec_octet)), flow_port],
        [DIGIT, Cat (Ch 46 46) (Cat dec_octet (Cat (Ch 46 46) dec_octet)), flow_port]], []]])
      else
      if s = 23 then ([-128, 46, 47, 48, 53, 54, 58], [[[[Cat (Ch 46 46) (Cat dec_octet (Cat (Ch
        46 46) dec_octet)), Ch 95 95], [DIGIT, Cat (Ch 46 46) (Cat dec_octet (Cat (Ch 46 46)
        dec_octet)), Ch 95 95], [Cat (Ch 48 52) DIGIT, Cat (Ch 46 46) (Cat dec_octet (Cat (Ch 46
        46) dec_octet)), Ch 95 95], [Cat (Ch 53 53) (Ch 48 53), Cat (Ch 46 46) (Cat dec_octet (Cat
        (Ch 46 46) dec_octet)), Ch 95 95]], [], [[Cat (Ch 46 46) (Cat dec_octet (Cat (Ch 46 46)
        dec_octet)), flow_port], [DIGIT, Cat (Ch 46 46) (Cat dec_octet (Cat (Ch 46 46)
        dec_octet)), flow_port], [Cat (Ch 48 52) DIGIT, Cat (Ch 46 46) (Cat dec_octet (Cat (Ch 46
        46) dec_octet)), flow_port], [Cat (Ch 53 53) (Ch 48 53), Cat (Ch 46 46) (Cat dec_octet
        (Cat (Ch 46 46) dec_octet)), flow_port]], []]])
      else
      ([-128, 46, 47, 48, 54], [[[[Cat (Ch 46 46) (Cat dec_octet (Cat (Ch 46 46) dec_octet)), Ch
        95 95], [Ch 48 53, Cat (Ch 46 46) (Cat dec_octet (Cat (Ch 46 46) dec_octet)), Ch 95 95]],
        [], [[Cat (Ch 46 46) (Cat dec_octet (Cat (Ch 46 46) dec_octet)), flow_port], [Ch 48 53,
        Cat (Ch 46 46) (Cat dec_octet (Cat (Ch 46 46) dec_octet)), flow_port]], []]]))"

definition flow_expects_3 :: certificate where
  "flow_expects_3 s =
     (if s = 25 then ([-128, 48, 58, 59, 65, 71, 97, 103], [[[], [[Rep 0 2 HEXDIG, Ch 58 58, Rep 5
        5 h16_colon, ls32, Ch 95 95], [Rep 0 2 HEXDIG, Cat dcolon (Cat (Rep 4 4 h16_colon) ls32),
        Ch 95 95], [Rep 0 2 HEXDIG, Cat dcolon (Cat (Rep 3 3 h16_colon) ls32), Ch 95 95], [Rep 0 2
        HEXDIG, Ch 58 58, h16, Cat dcolon (Cat (Rep 3 3 h16_colon) ls32), Ch 95 95], [Rep 0 2
        HEXDIG, Cat dcolon (Cat (Rep 2 2 h16_colon) ls32), Ch 95 95], [Rep 0 2 HEXDIG, Ch 58 58,
        Rep 0 1 h16_colon, h16, Cat dcolon (Cat (Rep 2 2 h16_colon) ls32), Ch 95 95], [Rep 0 2
        HEXDIG, Cat dcolon (Cat h16_colon ls32), Ch 95 95], [Rep 0 2 HEXDIG, Ch 58 58, Rep 0 2
        h16_colon, h16, Cat dcolon (Cat h16_colon ls32), Ch 95 95], [Rep 0 2 HEXDIG, Cat dcolon
        ls32, Ch 95 95], [Rep 0 2 HEXDIG, Ch 58 58, Rep 0 3 h16_colon, h16, Cat dcolon ls32, Ch 95
        95], [Rep 0 2 HEXDIG, Cat dcolon h16, Ch 95 95], [Rep 0 2 HEXDIG, Ch 58 58, Rep 0 4
        h16_colon, h16, Cat dcolon h16, Ch 95 95], [Rep 0 2 HEXDIG, dcolon, Ch 95 95], [Rep 0 2
        HEXDIG, Ch 58 58, Rep 0 5 h16_colon, h16, dcolon, Ch 95 95]], [[Rep 0 2 HEXDIG, Ch 58 58,
        Rep 5 5 h16_colon, ls32, flow_port], [Rep 0 2 HEXDIG, Cat dcolon (Cat (Rep 4 4 h16_colon)
        ls32), flow_port], [Rep 0 2 HEXDIG, Cat dcolon (Cat (Rep 3 3 h16_colon) ls32), flow_port],
        [Rep 0 2 HEXDIG, Ch 58 58, h16, Cat dcolon (Cat (Rep 3 3 h16_colon) ls32), flow_port],
        [Rep 0 2 HEXDIG, Cat dcolon (Cat (Rep 2 2 h16_colon) ls32), flow_port], [Rep 0 2 HEXDIG,
        Ch 58 58, Rep 0 1 h16_colon, h16, Cat dcolon (Cat (Rep 2 2 h16_colon) ls32), flow_port],
        [Rep 0 2 HEXDIG, Cat dcolon (Cat h16_colon ls32), flow_port], [Rep 0 2 HEXDIG, Ch 58 58,
        Rep 0 2 h16_colon, h16, Cat dcolon (Cat h16_colon ls32), flow_port], [Rep 0 2 HEXDIG, Cat
        dcolon ls32, flow_port], [Rep 0 2 HEXDIG, Ch 58 58, Rep 0 3 h16_colon, h16, Cat dcolon
        ls32, flow_port], [Rep 0 2 HEXDIG, Cat dcolon h16, flow_port], [Rep 0 2 HEXDIG, Ch 58 58,
        Rep 0 4 h16_colon, h16, Cat dcolon h16, flow_port], [Rep 0 2 HEXDIG, dcolon, flow_port],
        [Rep 0 2 HEXDIG, Ch 58 58, Rep 0 5 h16_colon, h16, dcolon, flow_port]], []]])
      else
      if s = 26 then ([-128, 48, 58, 59, 65, 71, 97, 103], [[[], [[Rep 0 1 HEXDIG, Ch 58 58, Rep 5
        5 h16_colon, ls32, Ch 95 95], [Rep 0 1 HEXDIG, Cat dcolon (Cat (Rep 4 4 h16_colon) ls32),
        Ch 95 95], [Rep 0 1 HEXDIG, Cat dcolon (Cat (Rep 3 3 h16_colon) ls32), Ch 95 95], [Rep 0 1
        HEXDIG, Ch 58 58, h16, Cat dcolon (Cat (Rep 3 3 h16_colon) ls32), Ch 95 95], [Rep 0 1
        HEXDIG, Cat dcolon (Cat (Rep 2 2 h16_colon) ls32), Ch 95 95], [Rep 0 1 HEXDIG, Ch 58 58,
        Rep 0 1 h16_colon, h16, Cat dcolon (Cat (Rep 2 2 h16_colon) ls32), Ch 95 95], [Rep 0 1
        HEXDIG, Cat dcolon (Cat h16_colon ls32), Ch 95 95], [Rep 0 1 HEXDIG, Ch 58 58, Rep 0 2
        h16_colon, h16, Cat dcolon (Cat h16_colon ls32), Ch 95 95], [Rep 0 1 HEXDIG, Cat dcolon
        ls32, Ch 95 95], [Rep 0 1 HEXDIG, Ch 58 58, Rep 0 3 h16_colon, h16, Cat dcolon ls32, Ch 95
        95], [Rep 0 1 HEXDIG, Cat dcolon h16, Ch 95 95], [Rep 0 1 HEXDIG, Ch 58 58, Rep 0 4
        h16_colon, h16, Cat dcolon h16, Ch 95 95], [Rep 0 1 HEXDIG, dcolon, Ch 95 95], [Rep 0 1
        HEXDIG, Ch 58 58, Rep 0 5 h16_colon, h16, dcolon, Ch 95 95]], [[Rep 0 1 HEXDIG, Ch 58 58,
        Rep 5 5 h16_colon, ls32, flow_port], [Rep 0 1 HEXDIG, Cat dcolon (Cat (Rep 4 4 h16_colon)
        ls32), flow_port], [Rep 0 1 HEXDIG, Cat dcolon (Cat (Rep 3 3 h16_colon) ls32), flow_port],
        [Rep 0 1 HEXDIG, Ch 58 58, h16, Cat dcolon (Cat (Rep 3 3 h16_colon) ls32), flow_port],
        [Rep 0 1 HEXDIG, Cat dcolon (Cat (Rep 2 2 h16_colon) ls32), flow_port], [Rep 0 1 HEXDIG,
        Ch 58 58, Rep 0 1 h16_colon, h16, Cat dcolon (Cat (Rep 2 2 h16_colon) ls32), flow_port],
        [Rep 0 1 HEXDIG, Cat dcolon (Cat h16_colon ls32), flow_port], [Rep 0 1 HEXDIG, Ch 58 58,
        Rep 0 2 h16_colon, h16, Cat dcolon (Cat h16_colon ls32), flow_port], [Rep 0 1 HEXDIG, Cat
        dcolon ls32, flow_port], [Rep 0 1 HEXDIG, Ch 58 58, Rep 0 3 h16_colon, h16, Cat dcolon
        ls32, flow_port], [Rep 0 1 HEXDIG, Cat dcolon h16, flow_port], [Rep 0 1 HEXDIG, Ch 58 58,
        Rep 0 4 h16_colon, h16, Cat dcolon h16, flow_port], [Rep 0 1 HEXDIG, dcolon, flow_port],
        [Rep 0 1 HEXDIG, Ch 58 58, Rep 0 5 h16_colon, h16, dcolon, flow_port]], []]])
      else
      if s = 27 then ([-128, 58, 59], [[[], [[Ch 58 58, Rep 5 5 h16_colon, ls32, Ch 95 95], [Cat
        dcolon (Cat (Rep 4 4 h16_colon) ls32), Ch 95 95], [Cat dcolon (Cat (Rep 3 3 h16_colon)
        ls32), Ch 95 95], [Ch 58 58, h16, Cat dcolon (Cat (Rep 3 3 h16_colon) ls32), Ch 95 95],
        [Cat dcolon (Cat (Rep 2 2 h16_colon) ls32), Ch 95 95], [Ch 58 58, Rep 0 1 h16_colon, h16,
        Cat dcolon (Cat (Rep 2 2 h16_colon) ls32), Ch 95 95], [Cat dcolon (Cat h16_colon ls32), Ch
        95 95], [Ch 58 58, Rep 0 2 h16_colon, h16, Cat dcolon (Cat h16_colon ls32), Ch 95 95],
        [Cat dcolon ls32, Ch 95 95], [Ch 58 58, Rep 0 3 h16_colon, h16, Cat dcolon ls32, Ch 95
        95], [Cat dcolon h16, Ch 95 95], [Ch 58 58, Rep 0 4 h16_colon, h16, Cat dcolon h16, Ch 95
        95], [dcolon, Ch 95 95], [Ch 58 58, Rep 0 5 h16_colon, h16, dcolon, Ch 95 95]], [[Ch 58
        58, Rep 5 5 h16_colon, ls32, flow_port], [Cat dcolon (Cat (Rep 4 4 h16_colon) ls32),
        flow_port], [Cat dcolon (Cat (Rep 3 3 h16_colon) ls32), flow_port], [Ch 58 58, h16, Cat
        dcolon (Cat (Rep 3 3 h16_colon) ls32), flow_port], [Cat dcolon (Cat (Rep 2 2 h16_colon)
        ls32), flow_port], [Ch 58 58, Rep 0 1 h16_colon, h16, Cat dcolon (Cat (Rep 2 2 h16_colon)
        ls32), flow_port], [Cat dcolon (Cat h16_colon ls32), flow_port], [Ch 58 58, Rep 0 2
        h16_colon, h16, Cat dcolon (Cat h16_colon ls32), flow_port], [Cat dcolon ls32, flow_port],
        [Ch 58 58, Rep 0 3 h16_colon, h16, Cat dcolon ls32, flow_port], [Cat dcolon h16,
        flow_port], [Ch 58 58, Rep 0 4 h16_colon, h16, Cat dcolon h16, flow_port], [dcolon,
        flow_port], [Ch 58 58, Rep 0 5 h16_colon, h16, dcolon, flow_port]], []]])
      else
      if s = 28 then ([-128, 48, 58, 59, 65, 71, 97, 103], [[[], [[Rep 5 5 h16_colon, ls32, Ch 95
        95], [Ch 58 58, Cat (Rep 4 4 h16_colon) ls32, Ch 95 95], [Ch 58 58, Cat (Rep 3 3
        h16_colon) ls32, Ch 95 95], [h16, Cat dcolon (Cat (Rep 3 3 h16_colon) ls32), Ch 95 95],
        [Ch 58 58, Cat (Rep 2 2 h16_colon) ls32, Ch 95 95], [Rep 0 1 h16_colon, h16, Cat dcolon
        (Cat (Rep 2 2 h16_colon) ls32), Ch 95 95], [Ch 58 58, Cat h16_colon ls32, Ch 95 95], [Rep
        0 2 h16_colon, h16, Cat dcolon (Cat h16_colon ls32), Ch 95 95], [Ch 58 58, ls32, Ch 95
        95], [Rep 0 3 h16_colon, h16, Cat dcolon ls32, Ch 95 95], [Ch 58 58, h16, Ch 95 95], [Rep
        0 4 h16_colon, h16, Cat dcolon h16, Ch 95 95], [Ch 58 58, Ch 95 95], [Rep 0 5 h16_colon,
        h16, dcolon, Ch 95 95]], [[Rep 5 5 h16_colon, ls32, flow_port], [Ch 58 58, Cat (Rep 4 4
        h16_colon) ls32, flow_port], [Ch 58 58, Cat (Rep 3 3 h16_colon) ls32, flow_port], [h16,
        Cat dcolon (Cat (Rep 3 3 h16_colon) ls32), flow_port], [Ch 58 58, Cat (Rep 2 2 h16_colon)
        ls32, flow_port], [Rep 0 1 h16_colon, h16, Cat dcolon (Cat (Rep 2 2 h16_colon) ls32),
        flow_port], [Ch 58 58, Cat h16_colon ls32, flow_port], [Rep 0 2 h16_colon, h16, Cat dcolon
        (Cat h16_colon ls32), flow_port], [Ch 58 58, ls32, flow_port], [Rep 0 3 h16_colon, h16,
        Cat dcolon ls32, flow_port], [Ch 58 58, h16, flow_port], [Rep 0 4 h16_colon, h16, Cat
        dcolon h16, flow_port], [Ch 58 58, flow_port], [Rep 0 5 h16_colon, h16, dcolon,
        flow_port]], []]])
      else
      if s = 29 then ([-128, 48, 58, 59, 65, 71, 97, 103], [[[], [[Rep 0 3 HEXDIG, Ch 58 58, Rep 4
        4 h16_colon, ls32, Ch 95 95], [Rep 0 3 HEXDIG, Cat dcolon (Cat (Rep 3 3 h16_colon) ls32),
        Ch 95 95], [Rep 0 3 HEXDIG, Cat dcolon (Cat (Rep 2 2 h16_colon) ls32), Ch 95 95], [Rep 0 3
        HEXDIG, Ch 58 58, h16, Cat dcolon (Cat (Rep 2 2 h16_colon) ls32), Ch 95 95], [Rep 0 3
        HEXDIG, Cat dcolon (Cat h16_colon ls32), Ch 95 95], [Rep 0 3 HEXDIG, Ch 58 58, Rep 0 1
        h16_colon, h16, Cat dcolon (Cat h16_colon ls32), Ch 95 95], [Rep 0 3 HEXDIG, Cat dcolon
        ls32, Ch 95 95], [Rep 0 3 HEXDIG, Ch 58 58, Rep 0 2 h16_colon, h16, Cat dcolon ls32, Ch 95
        95], [Rep 0 3 HEXDIG, Cat dcolon h16, Ch 95 95], [Rep 0 3 HEXDIG, Ch 58 58, Rep 0 3
        h16_colon, h16, Cat dcolon h16, Ch 95 95], [Rep 0 3 HEXDIG, dcolon, Ch 95 95], [Rep 0 3
        HEXDIG, Ch 58 58, Rep 0 4 h16_colon, h16, dcolon, Ch 95 95]], [[Rep 0 3 HEXDIG, Ch 58 58,
        Rep 4 4 h16_colon, ls32, flow_port], [Rep 0 3 HEXDIG, Cat dcolon (Cat (Rep 3 3 h16_colon)
        ls32), flow_port], [Rep 0 3 HEXDIG, Cat dcolon (Cat (Rep 2 2 h16_colon) ls32), flow_port],
        [Rep 0 3 HEXDIG, Ch 58 58, h16, Cat dcolon (Cat (Rep 2 2 h16_colon) ls32), flow_port],
        [Rep 0 3 HEXDIG, Cat dcolon (Cat h16_colon ls32), flow_port], [Rep 0 3 HEXDIG, Ch 58 58,
        Rep 0 1 h16_colon, h16, Cat dcolon (Cat h16_colon ls32), flow_port], [Rep 0 3 HEXDIG, Cat
        dcolon ls32, flow_port], [Rep 0 3 HEXDIG, Ch 58 58, Rep 0 2 h16_colon, h16, Cat dcolon
        ls32, flow_port], [Rep 0 3 HEXDIG, Cat dcolon h16, flow_port], [Rep 0 3 HEXDIG, Ch 58 58,
        Rep 0 3 h16_colon, h16, Cat dcolon h16, flow_port], [Rep 0 3 HEXDIG, dcolon, flow_port],
        [Rep 0 3 HEXDIG, Ch 58 58, Rep 0 4 h16_colon, h16, dcolon, flow_port]], []]])
      else
      if s = 30 then ([-128, 48, 58, 59, 65, 71, 97, 103], [[[], [[Rep 0 2 HEXDIG, Ch 58 58, Rep 4
        4 h16_colon, ls32, Ch 95 95], [Rep 0 2 HEXDIG, Cat dcolon (Cat (Rep 3 3 h16_colon) ls32),
        Ch 95 95], [Rep 0 2 HEXDIG, Cat dcolon (Cat (Rep 2 2 h16_colon) ls32), Ch 95 95], [Rep 0 2
        HEXDIG, Ch 58 58, h16, Cat dcolon (Cat (Rep 2 2 h16_colon) ls32), Ch 95 95], [Rep 0 2
        HEXDIG, Cat dcolon (Cat h16_colon ls32), Ch 95 95], [Rep 0 2 HEXDIG, Ch 58 58, Rep 0 1
        h16_colon, h16, Cat dcolon (Cat h16_colon ls32), Ch 95 95], [Rep 0 2 HEXDIG, Cat dcolon
        ls32, Ch 95 95], [Rep 0 2 HEXDIG, Ch 58 58, Rep 0 2 h16_colon, h16, Cat dcolon ls32, Ch 95
        95], [Rep 0 2 HEXDIG, Cat dcolon h16, Ch 95 95], [Rep 0 2 HEXDIG, Ch 58 58, Rep 0 3
        h16_colon, h16, Cat dcolon h16, Ch 95 95], [Rep 0 2 HEXDIG, dcolon, Ch 95 95], [Rep 0 2
        HEXDIG, Ch 58 58, Rep 0 4 h16_colon, h16, dcolon, Ch 95 95]], [[Rep 0 2 HEXDIG, Ch 58 58,
        Rep 4 4 h16_colon, ls32, flow_port], [Rep 0 2 HEXDIG, Cat dcolon (Cat (Rep 3 3 h16_colon)
        ls32), flow_port], [Rep 0 2 HEXDIG, Cat dcolon (Cat (Rep 2 2 h16_colon) ls32), flow_port],
        [Rep 0 2 HEXDIG, Ch 58 58, h16, Cat dcolon (Cat (Rep 2 2 h16_colon) ls32), flow_port],
        [Rep 0 2 HEXDIG, Cat dcolon (Cat h16_colon ls32), flow_port], [Rep 0 2 HEXDIG, Ch 58 58,
        Rep 0 1 h16_colon, h16, Cat dcolon (Cat h16_colon ls32), flow_port], [Rep 0 2 HEXDIG, Cat
        dcolon ls32, flow_port], [Rep 0 2 HEXDIG, Ch 58 58, Rep 0 2 h16_colon, h16, Cat dcolon
        ls32, flow_port], [Rep 0 2 HEXDIG, Cat dcolon h16, flow_port], [Rep 0 2 HEXDIG, Ch 58 58,
        Rep 0 3 h16_colon, h16, Cat dcolon h16, flow_port], [Rep 0 2 HEXDIG, dcolon, flow_port],
        [Rep 0 2 HEXDIG, Ch 58 58, Rep 0 4 h16_colon, h16, dcolon, flow_port]], []]])
      else
      if s = 31 then ([-128, 48, 58, 59, 65, 71, 97, 103], [[[], [[Rep 0 1 HEXDIG, Ch 58 58, Rep 4
        4 h16_colon, ls32, Ch 95 95], [Rep 0 1 HEXDIG, Cat dcolon (Cat (Rep 3 3 h16_colon) ls32),
        Ch 95 95], [Rep 0 1 HEXDIG, Cat dcolon (Cat (Rep 2 2 h16_colon) ls32), Ch 95 95], [Rep 0 1
        HEXDIG, Ch 58 58, h16, Cat dcolon (Cat (Rep 2 2 h16_colon) ls32), Ch 95 95], [Rep 0 1
        HEXDIG, Cat dcolon (Cat h16_colon ls32), Ch 95 95], [Rep 0 1 HEXDIG, Ch 58 58, Rep 0 1
        h16_colon, h16, Cat dcolon (Cat h16_colon ls32), Ch 95 95], [Rep 0 1 HEXDIG, Cat dcolon
        ls32, Ch 95 95], [Rep 0 1 HEXDIG, Ch 58 58, Rep 0 2 h16_colon, h16, Cat dcolon ls32, Ch 95
        95], [Rep 0 1 HEXDIG, Cat dcolon h16, Ch 95 95], [Rep 0 1 HEXDIG, Ch 58 58, Rep 0 3
        h16_colon, h16, Cat dcolon h16, Ch 95 95], [Rep 0 1 HEXDIG, dcolon, Ch 95 95], [Rep 0 1
        HEXDIG, Ch 58 58, Rep 0 4 h16_colon, h16, dcolon, Ch 95 95]], [[Rep 0 1 HEXDIG, Ch 58 58,
        Rep 4 4 h16_colon, ls32, flow_port], [Rep 0 1 HEXDIG, Cat dcolon (Cat (Rep 3 3 h16_colon)
        ls32), flow_port], [Rep 0 1 HEXDIG, Cat dcolon (Cat (Rep 2 2 h16_colon) ls32), flow_port],
        [Rep 0 1 HEXDIG, Ch 58 58, h16, Cat dcolon (Cat (Rep 2 2 h16_colon) ls32), flow_port],
        [Rep 0 1 HEXDIG, Cat dcolon (Cat h16_colon ls32), flow_port], [Rep 0 1 HEXDIG, Ch 58 58,
        Rep 0 1 h16_colon, h16, Cat dcolon (Cat h16_colon ls32), flow_port], [Rep 0 1 HEXDIG, Cat
        dcolon ls32, flow_port], [Rep 0 1 HEXDIG, Ch 58 58, Rep 0 2 h16_colon, h16, Cat dcolon
        ls32, flow_port], [Rep 0 1 HEXDIG, Cat dcolon h16, flow_port], [Rep 0 1 HEXDIG, Ch 58 58,
        Rep 0 3 h16_colon, h16, Cat dcolon h16, flow_port], [Rep 0 1 HEXDIG, dcolon, flow_port],
        [Rep 0 1 HEXDIG, Ch 58 58, Rep 0 4 h16_colon, h16, dcolon, flow_port]], []]])
      else
      if s = 32 then ([-128, 58, 59], [[[], [[Ch 58 58, Rep 4 4 h16_colon, ls32, Ch 95 95], [Cat
        dcolon (Cat (Rep 3 3 h16_colon) ls32), Ch 95 95], [Cat dcolon (Cat (Rep 2 2 h16_colon)
        ls32), Ch 95 95], [Ch 58 58, h16, Cat dcolon (Cat (Rep 2 2 h16_colon) ls32), Ch 95 95],
        [Cat dcolon (Cat h16_colon ls32), Ch 95 95], [Ch 58 58, Rep 0 1 h16_colon, h16, Cat dcolon
        (Cat h16_colon ls32), Ch 95 95], [Cat dcolon ls32, Ch 95 95], [Ch 58 58, Rep 0 2
        h16_colon, h16, Cat dcolon ls32, Ch 95 95], [Cat dcolon h16, Ch 95 95], [Ch 58 58, Rep 0 3
        h16_colon, h16, Cat dcolon h16, Ch 95 95], [dcolon, Ch 95 95], [Ch 58 58, Rep 0 4
        h16_colon, h16, dcolon, Ch 95 95]], [[Ch 58 58, Rep 4 4 h16_colon, ls32, flow_port], [Cat
        dcolon (Cat (Rep 3 3 h16_colon) ls32), flow_port], [Cat dcolon (Cat (Rep 2 2 h16_colon)
        ls32), flow_port], [Ch 58 58, h16, Cat dcolon (Cat (Rep 2 2 h16_colon) ls32), flow_port],
        [Cat dcolon (Cat h16_colon ls32), flow_port], [Ch 58 58, Rep 0 1 h16_colon, h16, Cat
        dcolon (Cat h16_colon ls32), flow_port], [Cat dcolon ls32, flow_port], [Ch 58 58, Rep 0 2
        h16_colon, h16, Cat dcolon ls32, flow_port], [Cat dcolon h16, flow_port], [Ch 58 58, Rep 0
        3 h16_colon, h16, Cat dcolon h16, flow_port], [dcolon, flow_port], [Ch 58 58, Rep 0 4
        h16_colon, h16, dcolon, flow_port]], []]])
      else
      if s = 33 then ([-128, 48, 58, 59, 65, 71, 97, 103], [[[], [[Rep 4 4 h16_colon, ls32, Ch 95
        95], [Ch 58 58, Cat (Rep 3 3 h16_colon) ls32, Ch 95 95], [Ch 58 58, Cat (Rep 2 2
        h16_colon) ls32, Ch 95 95], [h16, Cat dcolon (Cat (Rep 2 2 h16_colon) ls32), Ch 95 95],
        [Ch 58 58, Cat h16_colon ls32, Ch 95 95], [Rep 0 1 h16_colon, h16, Cat dcolon (Cat
        h16_colon ls32), Ch 95 95], [Ch 58 58, ls32, Ch 95 95], [Rep 0 2 h16_colon, h16, Cat
        dcolon ls32, Ch 95 95], [Ch 58 58, h16, Ch 95 95], [Rep 0 3 h16_colon, h16, Cat dcolon
        h16, Ch 95 95], [Ch 58 58, Ch 95 95], [Rep 0 4 h16_colon, h16, dcolon, Ch 95 95]], [[Rep 4
        4 h16_colon, ls32, flow_port], [Ch 58 58, Cat (Rep 3 3 h16_colon) ls32, flow_port], [Ch 58
        58, Cat (Rep 2 2 h16_colon) ls32, flow_port], [h16, Cat dcolon (Cat (Rep 2 2 h16_colon)
        ls32), flow_port], [Ch 58 58, Cat h16_colon ls32, flow_port], [Rep 0 1 h16_colon, h16, Cat
        dcolon (Cat h16_colon ls32), flow_port], [Ch 58 58, ls32, flow_port], [Rep 0 2 h16_colon,
        h16, Cat dcolon ls32, flow_port], [Ch 58 58, h16, flow_port], [Rep 0 3 h16_colon, h16, Cat
        dcolon h16, flow_port], [Ch 58 58, flow_port], [Rep 0 4 h16_colon, h16, dcolon,
        flow_port]], []]])
      else
      if s = 34 then ([-128, 48, 58, 59, 65, 71, 97, 103], [[[], [[Rep 0 3 HEXDIG, Ch 58 58, Rep 3
        3 h16_colon, ls32, Ch 95 95], [Rep 0 3 HEXDIG, Cat dcolon (Cat (Rep 2 2 h16_colon) ls32),
        Ch 95 95], [Rep 0 3 HEXDIG, Cat dcolon (Cat h16_colon ls32), Ch 95 95], [Rep 0 3 HEXDIG,
        Ch 58 58, h16, Cat dcolon (Cat h16_colon ls32), Ch 95 95], [Rep 0 3 HEXDIG, Cat dcolon
        ls32, Ch 95 95], [Rep 0 3 HEXDIG, Ch 58 58, Rep 0 1 h16_colon, h16, Cat dcolon ls32, Ch 95
        95], [Rep 0 3 HEXDIG, Cat dcolon h16, Ch 95 95], [Rep 0 3 HEXDIG, Ch 58 58, Rep 0 2
        h16_colon, h16, Cat dcolon h16, Ch 95 95], [Rep 0 3 HEXDIG, dcolon, Ch 95 95], [Rep 0 3
        HEXDIG, Ch 58 58, Rep 0 3 h16_colon, h16, dcolon, Ch 95 95]], [[Rep 0 3 HEXDIG, Ch 58 58,
        Rep 3 3 h16_colon, ls32, flow_port], [Rep 0 3 HEXDIG, Cat dcolon (Cat (Rep 2 2 h16_colon)
        ls32), flow_port], [Rep 0 3 HEXDIG, Cat dcolon (Cat h16_colon ls32), flow_port], [Rep 0 3
        HEXDIG, Ch 58 58, h16, Cat dcolon (Cat h16_colon ls32), flow_port], [Rep 0 3 HEXDIG, Cat
        dcolon ls32, flow_port], [Rep 0 3 HEXDIG, Ch 58 58, Rep 0 1 h16_colon, h16, Cat dcolon
        ls32, flow_port], [Rep 0 3 HEXDIG, Cat dcolon h16, flow_port], [Rep 0 3 HEXDIG, Ch 58 58,
        Rep 0 2 h16_colon, h16, Cat dcolon h16, flow_port], [Rep 0 3 HEXDIG, dcolon, flow_port],
        [Rep 0 3 HEXDIG, Ch 58 58, Rep 0 3 h16_colon, h16, dcolon, flow_port]], []]])
      else
      if s = 35 then ([-128, 48, 58, 59, 65, 71, 97, 103], [[[], [[Rep 0 2 HEXDIG, Ch 58 58, Rep 3
        3 h16_colon, ls32, Ch 95 95], [Rep 0 2 HEXDIG, Cat dcolon (Cat (Rep 2 2 h16_colon) ls32),
        Ch 95 95], [Rep 0 2 HEXDIG, Cat dcolon (Cat h16_colon ls32), Ch 95 95], [Rep 0 2 HEXDIG,
        Ch 58 58, h16, Cat dcolon (Cat h16_colon ls32), Ch 95 95], [Rep 0 2 HEXDIG, Cat dcolon
        ls32, Ch 95 95], [Rep 0 2 HEXDIG, Ch 58 58, Rep 0 1 h16_colon, h16, Cat dcolon ls32, Ch 95
        95], [Rep 0 2 HEXDIG, Cat dcolon h16, Ch 95 95], [Rep 0 2 HEXDIG, Ch 58 58, Rep 0 2
        h16_colon, h16, Cat dcolon h16, Ch 95 95], [Rep 0 2 HEXDIG, dcolon, Ch 95 95], [Rep 0 2
        HEXDIG, Ch 58 58, Rep 0 3 h16_colon, h16, dcolon, Ch 95 95]], [[Rep 0 2 HEXDIG, Ch 58 58,
        Rep 3 3 h16_colon, ls32, flow_port], [Rep 0 2 HEXDIG, Cat dcolon (Cat (Rep 2 2 h16_colon)
        ls32), flow_port], [Rep 0 2 HEXDIG, Cat dcolon (Cat h16_colon ls32), flow_port], [Rep 0 2
        HEXDIG, Ch 58 58, h16, Cat dcolon (Cat h16_colon ls32), flow_port], [Rep 0 2 HEXDIG, Cat
        dcolon ls32, flow_port], [Rep 0 2 HEXDIG, Ch 58 58, Rep 0 1 h16_colon, h16, Cat dcolon
        ls32, flow_port], [Rep 0 2 HEXDIG, Cat dcolon h16, flow_port], [Rep 0 2 HEXDIG, Ch 58 58,
        Rep 0 2 h16_colon, h16, Cat dcolon h16, flow_port], [Rep 0 2 HEXDIG, dcolon, flow_port],
        [Rep 0 2 HEXDIG, Ch 58 58, Rep 0 3 h16_colon, h16, dcolon, flow_port]], []]])
      else
      ([-128, 48, 58, 59, 65, 71, 97, 103], [[[], [[Rep 0 1 HEXDIG, Ch 58 58, Rep 3 3 h16_colon,
        ls32, Ch 95 95], [Rep 0 1 HEXDIG, Cat dcolon (Cat (Rep 2 2 h16_colon) ls32), Ch 95 95],
        [Rep 0 1 HEXDIG, Cat dcolon (Cat h16_colon ls32), Ch 95 95], [Rep 0 1 HEXDIG, Ch 58 58,
        h16, Cat dcolon (Cat h16_colon ls32), Ch 95 95], [Rep 0 1 HEXDIG, Cat dcolon ls32, Ch 95
        95], [Rep 0 1 HEXDIG, Ch 58 58, Rep 0 1 h16_colon, h16, Cat dcolon ls32, Ch 95 95], [Rep 0
        1 HEXDIG, Cat dcolon h16, Ch 95 95], [Rep 0 1 HEXDIG, Ch 58 58, Rep 0 2 h16_colon, h16,
        Cat dcolon h16, Ch 95 95], [Rep 0 1 HEXDIG, dcolon, Ch 95 95], [Rep 0 1 HEXDIG, Ch 58 58,
        Rep 0 3 h16_colon, h16, dcolon, Ch 95 95]], [[Rep 0 1 HEXDIG, Ch 58 58, Rep 3 3 h16_colon,
        ls32, flow_port], [Rep 0 1 HEXDIG, Cat dcolon (Cat (Rep 2 2 h16_colon) ls32), flow_port],
        [Rep 0 1 HEXDIG, Cat dcolon (Cat h16_colon ls32), flow_port], [Rep 0 1 HEXDIG, Ch 58 58,
        h16, Cat dcolon (Cat h16_colon ls32), flow_port], [Rep 0 1 HEXDIG, Cat dcolon ls32,
        flow_port], [Rep 0 1 HEXDIG, Ch 58 58, Rep 0 1 h16_colon, h16, Cat dcolon ls32,
        flow_port], [Rep 0 1 HEXDIG, Cat dcolon h16, flow_port], [Rep 0 1 HEXDIG, Ch 58 58, Rep 0
        2 h16_colon, h16, Cat dcolon h16, flow_port], [Rep 0 1 HEXDIG, dcolon, flow_port], [Rep 0
        1 HEXDIG, Ch 58 58, Rep 0 3 h16_colon, h16, dcolon, flow_port]], []]]))"

definition flow_expects_4 :: certificate where
  "flow_expects_4 s =
     (if s = 37 then ([-128, 58, 59], [[[], [[Ch 58 58, Rep 3 3 h16_colon, ls32, Ch 95 95], [Cat
        dcolon (Cat (Rep 2 2 h16_colon) ls32), Ch 95 95], [Cat dcolon (Cat h16_colon ls32), Ch 95
        95], [Ch 58 58, h16, Cat dcolon (Cat h16_colon ls32), Ch 95 95], [Cat dcolon ls32, Ch 95
        95], [Ch 58 58, Rep 0 1 h16_colon, h16, Cat dcolon ls32, Ch 95 95], [Cat dcolon h16, Ch 95
        95], [Ch 58 58, Rep 0 2 h16_colon, h16, Cat dcolon h16, Ch 95 95], [dcolon, Ch 95 95], [Ch
        58 58, Rep 0 3 h16_colon, h16, dcolon, Ch 95 95]], [[Ch 58 58, Rep 3 3 h16_colon, ls32,
        flow_port], [Cat dcolon (Cat (Rep 2 2 h16_colon) ls32), flow_port], [Cat dcolon (Cat
        h16_colon ls32), flow_port], [Ch 58 58, h16, Cat dcolon (Cat h16_colon ls32), flow_port],
        [Cat dcolon ls32, flow_port], [Ch 58 58, Rep 0 1 h16_colon, h16, Cat dcolon ls32,
        flow_port], [Cat dcolon h16, flow_port], [Ch 58 58, Rep 0 2 h16_colon, h16, Cat dcolon
        h16, flow_port], [dcolon, flow_port], [Ch 58 58, Rep 0 3 h16_colon, h16, dcolon,
        flow_port]], []]])
      else
      if s = 38 then ([-128, 48, 58, 59, 65, 71, 97, 103], [[[], [[Rep 3 3 h16_colon, ls32, Ch 95
        95], [Ch 58 58, Cat (Rep 2 2 h16_colon) ls32, Ch 95 95], [Ch 58 58, Cat h16_colon ls32, Ch
        95 95], [h16, Cat dcolon (Cat h16_colon ls32), Ch 95 95], [Ch 58 58, ls32, Ch 95 95], [Rep
        0 1 h16_colon, h16, Cat dcolon ls32, Ch 95 95], [Ch 58 58, h16, Ch 95 95], [Rep 0 2
        h16_colon, h16, Cat dcolon h16, Ch 95 95], [Ch 58 58, Ch 95 95], [Rep 0 3 h16_colon, h16,
        dcolon, Ch 95 95]], [[Rep 3 3 h16_colon, ls32, flow_port], [Ch 58 58, Cat (Rep 2 2
        h16_colon) ls32, flow_port], [Ch 58 58, Cat h16_colon ls32, flow_port], [h16, Cat dcolon
        (Cat h16_colon ls32), flow_port], [Ch 58 58, ls32, flow_port], [Rep 0 1 h16_colon, h16,
        Cat dcolon ls32, flow_port], [Ch 58 58, h16, flow_port], [Rep 0 2 h16_colon, h16, Cat
        dcolon h16, flow_port], [Ch 58 58, flow_port], [Rep 0 3 h16_colon, h16, dcolon,
        flow_port]], []]])
      else
      if s = 39 then ([-128, 48, 58, 59, 65, 71, 97, 103], [[[], [[Rep 0 3 HEXDIG, Ch 58 58, Rep 2
        2 h16_colon, ls32, Ch 95 95], [Rep 0 3 HEXDIG, Cat dcolon (Cat h16_colon ls32), Ch 95 95],
        [Rep 0 3 HEXDIG, Cat dcolon ls32, Ch 95 95], [Rep 0 3 HEXDIG, Ch 58 58, h16, Cat dcolon
        ls32, Ch 95 95], [Rep 0 3 HEXDIG, Cat dcolon h16, Ch 95 95], [Rep 0 3 HEXDIG, Ch 58 58,
        Rep 0 1 h16_colon, h16, Cat dcolon h16, Ch 95 95], [Rep 0 3 HEXDIG, dcolon, Ch 95 95],
        [Rep 0 3 HEXDIG, Ch 58 58, Rep 0 2 h16_colon, h16, dcolon, Ch 95 95]], [[Rep 0 3 HEXDIG,
        Ch 58 58, Rep 2 2 h16_colon, ls32, flow_port], [Rep 0 3 HEXDIG, Cat dcolon (Cat h16_colon
        ls32), flow_port], [Rep 0 3 HEXDIG, Cat dcolon ls32, flow_port], [Rep 0 3 HEXDIG, Ch 58
        58, h16, Cat dcolon ls32, flow_port], [Rep 0 3 HEXDIG, Cat dcolon h16, flow_port], [Rep 0
        3 HEXDIG, Ch 58 58, Rep 0 1 h16_colon, h16, Cat dcolon h16, flow_port], [Rep 0 3 HEXDIG,
        dcolon, flow_port], [Rep 0 3 HEXDIG, Ch 58 58, Rep 0 2 h16_colon, h16, dcolon,
        flow_port]], []]])
      else
      if s = 40 then ([-128, 48, 58, 59, 65, 71, 97, 103], [[[], [[Rep 0 2 HEXDIG, Ch 58 58, Rep 2
        2 h16_colon, ls32, Ch 95 95], [Rep 0 2 HEXDIG, Cat dcolon (Cat h16_colon ls32), Ch 95 95],
        [Rep 0 2 HEXDIG, Cat dcolon ls32, Ch 95 95], [Rep 0 2 HEXDIG, Ch 58 58, h16, Cat dcolon
        ls32, Ch 95 95], [Rep 0 2 HEXDIG, Cat dcolon h16, Ch 95 95], [Rep 0 2 HEXDIG, Ch 58 58,
        Rep 0 1 h16_colon, h16, Cat dcolon h16, Ch 95 95], [Rep 0 2 HEXDIG, dcolon, Ch 95 95],
        [Rep 0 2 HEXDIG, Ch 58 58, Rep 0 2 h16_colon, h16, dcolon, Ch 95 95]], [[Rep 0 2 HEXDIG,
        Ch 58 58, Rep 2 2 h16_colon, ls32, flow_port], [Rep 0 2 HEXDIG, Cat dcolon (Cat h16_colon
        ls32), flow_port], [Rep 0 2 HEXDIG, Cat dcolon ls32, flow_port], [Rep 0 2 HEXDIG, Ch 58
        58, h16, Cat dcolon ls32, flow_port], [Rep 0 2 HEXDIG, Cat dcolon h16, flow_port], [Rep 0
        2 HEXDIG, Ch 58 58, Rep 0 1 h16_colon, h16, Cat dcolon h16, flow_port], [Rep 0 2 HEXDIG,
        dcolon, flow_port], [Rep 0 2 HEXDIG, Ch 58 58, Rep 0 2 h16_colon, h16, dcolon,
        flow_port]], []]])
      else
      if s = 41 then ([-128, 48, 58, 59, 65, 71, 97, 103], [[[], [[Rep 0 1 HEXDIG, Ch 58 58, Rep 2
        2 h16_colon, ls32, Ch 95 95], [Rep 0 1 HEXDIG, Cat dcolon (Cat h16_colon ls32), Ch 95 95],
        [Rep 0 1 HEXDIG, Cat dcolon ls32, Ch 95 95], [Rep 0 1 HEXDIG, Ch 58 58, h16, Cat dcolon
        ls32, Ch 95 95], [Rep 0 1 HEXDIG, Cat dcolon h16, Ch 95 95], [Rep 0 1 HEXDIG, Ch 58 58,
        Rep 0 1 h16_colon, h16, Cat dcolon h16, Ch 95 95], [Rep 0 1 HEXDIG, dcolon, Ch 95 95],
        [Rep 0 1 HEXDIG, Ch 58 58, Rep 0 2 h16_colon, h16, dcolon, Ch 95 95]], [[Rep 0 1 HEXDIG,
        Ch 58 58, Rep 2 2 h16_colon, ls32, flow_port], [Rep 0 1 HEXDIG, Cat dcolon (Cat h16_colon
        ls32), flow_port], [Rep 0 1 HEXDIG, Cat dcolon ls32, flow_port], [Rep 0 1 HEXDIG, Ch 58
        58, h16, Cat dcolon ls32, flow_port], [Rep 0 1 HEXDIG, Cat dcolon h16, flow_port], [Rep 0
        1 HEXDIG, Ch 58 58, Rep 0 1 h16_colon, h16, Cat dcolon h16, flow_port], [Rep 0 1 HEXDIG,
        dcolon, flow_port], [Rep 0 1 HEXDIG, Ch 58 58, Rep 0 2 h16_colon, h16, dcolon,
        flow_port]], []]])
      else
      if s = 42 then ([-128, 58, 59], [[[], [[Ch 58 58, Rep 2 2 h16_colon, ls32, Ch 95 95], [Cat
        dcolon (Cat h16_colon ls32), Ch 95 95], [Cat dcolon ls32, Ch 95 95], [Ch 58 58, h16, Cat
        dcolon ls32, Ch 95 95], [Cat dcolon h16, Ch 95 95], [Ch 58 58, Rep 0 1 h16_colon, h16, Cat
        dcolon h16, Ch 95 95], [dcolon, Ch 95 95], [Ch 58 58, Rep 0 2 h16_colon, h16, dcolon, Ch
        95 95]], [[Ch 58 58, Rep 2 2 h16_colon, ls32, flow_port], [Cat dcolon (Cat h16_colon
        ls32), flow_port], [Cat dcolon ls32, flow_port], [Ch 58 58, h16, Cat dcolon ls32,
        flow_port], [Cat dcolon h16, flow_port], [Ch 58 58, Rep 0 1 h16_colon, h16, Cat dcolon
        h16, flow_port], [dcolon, flow_port], [Ch 58 58, Rep 0 2 h16_colon, h16, dcolon,
        flow_port]], []]])
      else
      if s = 43 then ([-128, 48, 58, 59, 65, 71, 97, 103], [[[], [[Rep 2 2 h16_colon, ls32, Ch 95
        95], [Ch 58 58, Cat h16_colon ls32, Ch 95 95], [Ch 58 58, ls32, Ch 95 95], [h16, Cat
        dcolon ls32, Ch 95 95], [Ch 58 58, h16, Ch 95 95], [Rep 0 1 h16_colon, h16, Cat dcolon
        h16, Ch 95 95], [Ch 58 58, Ch 95 95], [Rep 0 2 h16_colon, h16, dcolon, Ch 95 95]], [[Rep 2
        2 h16_colon, ls32, flow_port], [Ch 58 58, Cat h16_colon ls32, flow_port], [Ch 58 58, ls32,
        flow_port], [h16, Cat dcolon ls32, flow_port], [Ch 58 58, h16, flow_port], [Rep 0 1
        h16_colon, h16, Cat dcolon h16, flow_port], [Ch 58 58, flow_port], [Rep 0 2 h16_colon,
        h16, dcolon, flow_port]], []]])
      else
      if s = 44 then ([-128, 48, 58, 59, 65, 71, 97, 103], [[[], [[Rep 0 3 HEXDIG, Ch 58 58,
        h16_colon, ls32, Ch 95 95], [Rep 0 3 HEXDIG, Cat dcolon ls32, Ch 95 95], [Rep 0 3 HEXDIG,
        Cat dcolon h16, Ch 95 95], [Rep 0 3 HEXDIG, Ch 58 58, h16, Cat dcolon h16, Ch 95 95], [Rep
        0 3 HEXDIG, dcolon, Ch 95 95], [Rep 0 3 HEXDIG, Ch 58 58, Rep 0 1 h16_colon, h16, dcolon,
        Ch 95 95]], [[Rep 0 3 HEXDIG, Ch 58 58, h16_colon, ls32, flow_port], [Rep 0 3 HEXDIG, Cat
        dcolon ls32, flow_port], [Rep 0 3 HEXDIG, Cat dcolon h16, flow_port], [Rep 0 3 HEXDIG, Ch
        58 58, h16, Cat dcolon h16, flow_port], [Rep 0 3 HEXDIG, dcolon, flow_port], [Rep 0 3
        HEXDIG, Ch 58 58, Rep 0 1 h16_colon, h16, dcolon, flow_port]], []]])
      else
      if s = 45 then ([-128, 48, 58, 59, 65, 71, 97, 103], [[[], [[Rep 0 2 HEXDIG, Ch 58 58,
        h16_colon, ls32, Ch 95 95], [Rep 0 2 HEXDIG, Cat dcolon ls32, Ch 95 95], [Rep 0 2 HEXDIG,
        Cat dcolon h16, Ch 95 95], [Rep 0 2 HEXDIG, Ch 58 58, h16, Cat dcolon h16, Ch 95 95], [Rep
        0 2 HEXDIG, dcolon, Ch 95 95], [Rep 0 2 HEXDIG, Ch 58 58, Rep 0 1 h16_colon, h16, dcolon,
        Ch 95 95]], [[Rep 0 2 HEXDIG, Ch 58 58, h16_colon, ls32, flow_port], [Rep 0 2 HEXDIG, Cat
        dcolon ls32, flow_port], [Rep 0 2 HEXDIG, Cat dcolon h16, flow_port], [Rep 0 2 HEXDIG, Ch
        58 58, h16, Cat dcolon h16, flow_port], [Rep 0 2 HEXDIG, dcolon, flow_port], [Rep 0 2
        HEXDIG, Ch 58 58, Rep 0 1 h16_colon, h16, dcolon, flow_port]], []]])
      else
      if s = 46 then ([-128, 48, 58, 59, 65, 71, 97, 103], [[[], [[Rep 0 1 HEXDIG, Ch 58 58,
        h16_colon, ls32, Ch 95 95], [Rep 0 1 HEXDIG, Cat dcolon ls32, Ch 95 95], [Rep 0 1 HEXDIG,
        Cat dcolon h16, Ch 95 95], [Rep 0 1 HEXDIG, Ch 58 58, h16, Cat dcolon h16, Ch 95 95], [Rep
        0 1 HEXDIG, dcolon, Ch 95 95], [Rep 0 1 HEXDIG, Ch 58 58, Rep 0 1 h16_colon, h16, dcolon,
        Ch 95 95]], [[Rep 0 1 HEXDIG, Ch 58 58, h16_colon, ls32, flow_port], [Rep 0 1 HEXDIG, Cat
        dcolon ls32, flow_port], [Rep 0 1 HEXDIG, Cat dcolon h16, flow_port], [Rep 0 1 HEXDIG, Ch
        58 58, h16, Cat dcolon h16, flow_port], [Rep 0 1 HEXDIG, dcolon, flow_port], [Rep 0 1
        HEXDIG, Ch 58 58, Rep 0 1 h16_colon, h16, dcolon, flow_port]], []]])
      else
      if s = 47 then ([-128, 58, 59], [[[], [[Ch 58 58, h16_colon, ls32, Ch 95 95], [Cat dcolon
        ls32, Ch 95 95], [Cat dcolon h16, Ch 95 95], [Ch 58 58, h16, Cat dcolon h16, Ch 95 95],
        [dcolon, Ch 95 95], [Ch 58 58, Rep 0 1 h16_colon, h16, dcolon, Ch 95 95]], [[Ch 58 58,
        h16_colon, ls32, flow_port], [Cat dcolon ls32, flow_port], [Cat dcolon h16, flow_port],
        [Ch 58 58, h16, Cat dcolon h16, flow_port], [dcolon, flow_port], [Ch 58 58, Rep 0 1
        h16_colon, h16, dcolon, flow_port]], []]])
      else
      ([-128, 48, 58, 59, 65, 71, 97, 103], [[[], [[h16_colon, ls32, Ch 95 95], [Ch 58 58, ls32,
        Ch 95 95], [Ch 58 58, h16, Ch 95 95], [h16, Cat dcolon h16, Ch 95 95], [Ch 58 58, Ch 95
        95], [Rep 0 1 h16_colon, h16, dcolon, Ch 95 95]], [[h16_colon, ls32, flow_port], [Ch 58
        58, ls32, flow_port], [Ch 58 58, h16, flow_port], [h16, Cat dcolon h16, flow_port], [Ch 58
        58, flow_port], [Rep 0 1 h16_colon, h16, dcolon, flow_port]], []]]))"

definition flow_expects_5 :: certificate where
  "flow_expects_5 s =
     (if s = 49 then ([-128, 48, 58, 59, 65, 71, 97, 103], [[[], [[Rep 0 3 HEXDIG, Ch 58 58, ls32,
        Ch 95 95], [Rep 0 3 HEXDIG, Cat dcolon h16, Ch 95 95], [Rep 0 3 HEXDIG, dcolon, Ch 95 95],
        [Rep 0 3 HEXDIG, Ch 58 58, h16, dcolon, Ch 95 95]], [[Rep 0 3 HEXDIG, Ch 58 58, ls32,
        flow_port], [Rep 0 3 HEXDIG, Cat dcolon h16, flow_port], [Rep 0 3 HEXDIG, dcolon,
        flow_port], [Rep 0 3 HEXDIG, Ch 58 58, h16, dcolon, flow_port]], []]])
      else
      if s = 50 then ([-128, 48, 58, 59, 65, 71, 97, 103], [[[], [[Rep 0 2 HEXDIG, Ch 58 58, ls32,
        Ch 95 95], [Rep 0 2 HEXDIG, Cat dcolon h16, Ch 95 95], [Rep 0 2 HEXDIG, dcolon, Ch 95 95],
        [Rep 0 2 HEXDIG, Ch 58 58, h16, dcolon, Ch 95 95]], [[Rep 0 2 HEXDIG, Ch 58 58, ls32,
        flow_port], [Rep 0 2 HEXDIG, Cat dcolon h16, flow_port], [Rep 0 2 HEXDIG, dcolon,
        flow_port], [Rep 0 2 HEXDIG, Ch 58 58, h16, dcolon, flow_port]], []]])
      else
      if s = 51 then ([-128, 48, 58, 59, 65, 71, 97, 103], [[[], [[Rep 0 1 HEXDIG, Ch 58 58, ls32,
        Ch 95 95], [Rep 0 1 HEXDIG, Cat dcolon h16, Ch 95 95], [Rep 0 1 HEXDIG, dcolon, Ch 95 95],
        [Rep 0 1 HEXDIG, Ch 58 58, h16, dcolon, Ch 95 95]], [[Rep 0 1 HEXDIG, Ch 58 58, ls32,
        flow_port], [Rep 0 1 HEXDIG, Cat dcolon h16, flow_port], [Rep 0 1 HEXDIG, dcolon,
        flow_port], [Rep 0 1 HEXDIG, Ch 58 58, h16, dcolon, flow_port]], []]])
      else
      if s = 52 then ([-128, 58, 59], [[[], [[Ch 58 58, ls32, Ch 95 95], [Cat dcolon h16, Ch 95
        95], [dcolon, Ch 95 95], [Ch 58 58, h16, dcolon, Ch 95 95]], [[Ch 58 58, ls32, flow_port],
        [Cat dcolon h16, flow_port], [dcolon, flow_port], [Ch 58 58, h16, dcolon, flow_port]],
        []]])
      else
      if s = 53 then ([-128, 48, 49, 50, 51, 58, 59, 65, 71, 97, 103], [[[], [[ls32, Ch 95 95],
        [Ch 58 58, h16, Ch 95 95], [Ch 58 58, Ch 95 95], [h16, dcolon, Ch 95 95]], [[ls32,
        flow_port], [Ch 58 58, h16, flow_port], [Ch 58 58, flow_port], [h16, dcolon, flow_port]],
        []]])
      else
      if s = 54 then ([-128, 46, 47, 48, 58, 59, 65, 71, 97, 103], [[[], [[Rep 0 3 HEXDIG, Cat (Ch
        58 58) h16, Ch 95 95], [Cat (Ch 46 46) (Cat dec_octet (Cat (Ch 46 46) (Cat dec_octet (Cat
        (Ch 46 46) dec_octet)))), Ch 95 95], [Rep 0 3 HEXDIG, dcolon, Ch 95 95]], [[Rep 0 3
        HEXDIG, Cat (Ch 58 58) h16, flow_port], [Cat (Ch 46 46) (Cat dec_octet (Cat (Ch 46 46)
        (Cat dec_octet (Cat (Ch 46 46) dec_octet)))), flow_port], [Rep 0 3 HEXDIG, dcolon,
        flow_port]], []]])
      else
      if s = 55 then ([-128, 48, 49, 50, 51, 58], [[[], [[Cat dec_octet (Cat (Ch 46 46) (Cat
        dec_octet (Cat (Ch 46 46) dec_octet))), Ch 95 95]], [[Cat dec_octet (Cat (Ch 46 46) (Cat
        dec_octet (Cat (Ch 46 46) dec_octet))), flow_port]], []]])
      else
      if s = 56 then ([-128, 46, 47], [[[], [[Cat (Ch 46 46) (Cat dec_octet (Cat (Ch 46 46)
        dec_octet)), Ch 95 95]], [[Cat (Ch 46 46) (Cat dec_octet (Cat (Ch 46 46) dec_octet)),
        flow_port]], []]])
      else
      if s = 57 then ([-128, 48, 49, 50, 51, 58], [[[], [[Cat dec_octet (Cat (Ch 46 46)
        dec_octet), Ch 95 95]], [[Cat dec_octet (Cat (Ch 46 46) dec_octet), flow_port]], []]])
      else
      if s = 58 then ([-128, 46, 47], [[[], [[Cat (Ch 46 46) dec_octet, Ch 95 95]], [[Cat (Ch 46
        46) dec_octet, flow_port]], []]])
      else
      if s = 59 then ([-128, 48, 49, 50, 51, 58], [[[], [[dec_octet, Ch 95 95]], [[dec_octet,
        flow_port]], []]])
      else
      ([-128, 95, 96], [[[], [[Ch 95 95]], [[flow_port]], []]]))"

definition flow_expects_6 :: certificate where
  "flow_expects_6 s =
     (if s = 61 then ([-128, 48, 58, 95, 96], [[[], [[Ch 95 95], [DIGIT, Ch 95 95], [Rep 2 2
        DIGIT, Ch 95 95]], [[flow_port], [DIGIT, flow_port], [Rep 2 2 DIGIT, flow_port]], []]])
      else
      if s = 62 then ([-128, 48, 58, 95, 96], [[[], [[Ch 95 95], [DIGIT, Ch 95 95]], [[flow_port],
        [DIGIT, flow_port]], []]])
      else
      if s = 63 then ([-128, 48, 53, 54, 58, 95, 96], [[[], [[Ch 95 95], [DIGIT, Ch 95 95], [Cat
        (Ch 48 52) DIGIT, Ch 95 95], [Cat (Ch 53 53) (Ch 48 53), Ch 95 95]], [[flow_port], [DIGIT,
        flow_port], [Cat (Ch 48 52) DIGIT, flow_port], [Cat (Ch 53 53) (Ch 48 53), flow_port]],
        []]])
      else
      if s = 64 then ([-128, 48, 54, 95, 96], [[[], [[Ch 95 95], [Ch 48 53, Ch 95 95]],
        [[flow_port], [Ch 48 53, flow_port]], []]])
      else
      if s = 65 then ([-128, 46, 47, 48, 58], [[[], [[Cat (Ch 46 46) dec_octet, Ch 95 95], [DIGIT,
        Cat (Ch 46 46) dec_octet, Ch 95 95], [Rep 2 2 DIGIT, Cat (Ch 46 46) dec_octet, Ch 95 95]],
        [[Cat (Ch 46 46) dec_octet, flow_port], [DIGIT, Cat (Ch 46 46) dec_octet, flow_port], [Rep
        2 2 DIGIT, Cat (Ch 46 46) dec_octet, flow_port]], []]])
      else
      if s = 66 then ([-128, 46, 47, 48, 58], [[[], [[Cat (Ch 46 46) dec_octet, Ch 95 95], [DIGIT,
        Cat (Ch 46 46) dec_octet, Ch 95 95]], [[Cat (Ch 46 46) dec_octet, flow_port], [DIGIT, Cat
        (Ch 46 46) dec_octet, flow_port]], []]])
      else
      if s = 67 then ([-128, 46, 47, 48, 53, 54, 58], [[[], [[Cat (Ch 46 46) dec_octet, Ch 95 95],
        [DIGIT, Cat (Ch 46 46) dec_octet, Ch 95 95], [Cat (Ch 48 52) DIGIT, Cat (Ch 46 46)
        dec_octet, Ch 95 95], [Cat (Ch 53 53) (Ch 48 53), Cat (Ch 46 46) dec_octet, Ch 95 95]],
        [[Cat (Ch 46 46) dec_octet, flow_port], [DIGIT, Cat (Ch 46 46) dec_octet, flow_port], [Cat
        (Ch 48 52) DIGIT, Cat (Ch 46 46) dec_octet, flow_port], [Cat (Ch 53 53) (Ch 48 53), Cat
        (Ch 46 46) dec_octet, flow_port]], []]])
      else
      if s = 68 then ([-128, 46, 47, 48, 54], [[[], [[Cat (Ch 46 46) dec_octet, Ch 95 95], [Ch 48
        53, Cat (Ch 46 46) dec_octet, Ch 95 95]], [[Cat (Ch 46 46) dec_octet, flow_port], [Ch 48
        53, Cat (Ch 46 46) dec_octet, flow_port]], []]])
      else
      if s = 69 then ([-128, 46, 47, 48, 58], [[[], [[Cat (Ch 46 46) (Cat dec_octet (Cat (Ch 46
        46) dec_octet)), Ch 95 95], [DIGIT, Cat (Ch 46 46) (Cat dec_octet (Cat (Ch 46 46)
        dec_octet)), Ch 95 95], [Rep 2 2 DIGIT, Cat (Ch 46 46) (Cat dec_octet (Cat (Ch 46 46)
        dec_octet)), Ch 95 95]], [[Cat (Ch 46 46) (Cat dec_octet (Cat (Ch 46 46) dec_octet)),
        flow_port], [DIGIT, Cat (Ch 46 46) (Cat dec_octet (Cat (Ch 46 46) dec_octet)), flow_port],
        [Rep 2 2 DIGIT, Cat (Ch 46 46) (Cat dec_octet (Cat (Ch 46 46) dec_octet)), flow_port]],
        []]])
      else
      if s = 70 then ([-128, 46, 47, 48, 58], [[[], [[Cat (Ch 46 46) (Cat dec_octet (Cat (Ch 46
        46) dec_octet)), Ch 95 95], [DIGIT, Cat (Ch 46 46) (Cat dec_octet (Cat (Ch 46 46)
        dec_octet)), Ch 95 95]], [[Cat (Ch 46 46) (Cat dec_octet (Cat (Ch 46 46) dec_octet)),
        flow_port], [DIGIT, Cat (Ch 46 46) (Cat dec_octet (Cat (Ch 46 46) dec_octet)),
        flow_port]], []]])
      else
      if s = 71 then ([-128, 46, 47, 48, 53, 54, 58], [[[], [[Cat (Ch 46 46) (Cat dec_octet (Cat
        (Ch 46 46) dec_octet)), Ch 95 95], [DIGIT, Cat (Ch 46 46) (Cat dec_octet (Cat (Ch 46 46)
        dec_octet)), Ch 95 95], [Cat (Ch 48 52) DIGIT, Cat (Ch 46 46) (Cat dec_octet (Cat (Ch 46
        46) dec_octet)), Ch 95 95], [Cat (Ch 53 53) (Ch 48 53), Cat (Ch 46 46) (Cat dec_octet (Cat
        (Ch 46 46) dec_octet)), Ch 95 95]], [[Cat (Ch 46 46) (Cat dec_octet (Cat (Ch 46 46)
        dec_octet)), flow_port], [DIGIT, Cat (Ch 46 46) (Cat dec_octet (Cat (Ch 46 46)
        dec_octet)), flow_port], [Cat (Ch 48 52) DIGIT, Cat (Ch 46 46) (Cat dec_octet (Cat (Ch 46
        46) dec_octet)), flow_port], [Cat (Ch 53 53) (Ch 48 53), Cat (Ch 46 46) (Cat dec_octet
        (Cat (Ch 46 46) dec_octet)), flow_port]], []]])
      else
      ([-128, 46, 47, 48, 54], [[[], [[Cat (Ch 46 46) (Cat dec_octet (Cat (Ch 46 46) dec_octet)),
        Ch 95 95], [Ch 48 53, Cat (Ch 46 46) (Cat dec_octet (Cat (Ch 46 46) dec_octet)), Ch 95
        95]], [[Cat (Ch 46 46) (Cat dec_octet (Cat (Ch 46 46) dec_octet)), flow_port], [Ch 48 53,
        Cat (Ch 46 46) (Cat dec_octet (Cat (Ch 46 46) dec_octet)), flow_port]], []]]))"

definition flow_expects_7 :: certificate where
  "flow_expects_7 s =
     (if s = 73 then ([-128, 48, 58, 59, 65, 71, 97, 103], [[[], [[Rep 0 2 HEXDIG, Cat (Ch 58 58)
        h16, Ch 95 95], [Rep 0 2 HEXDIG, dcolon, Ch 95 95]], [[Rep 0 2 HEXDIG, Cat (Ch 58 58) h16,
        flow_port], [Rep 0 2 HEXDIG, dcolon, flow_port]], []]])
      else
      if s = 74 then ([-128, 48, 58, 59, 65, 71, 97, 103], [[[], [[Rep 0 1 HEXDIG, Cat (Ch 58 58)
        h16, Ch 95 95], [Rep 0 1 HEXDIG, dcolon, Ch 95 95]], [[Rep 0 1 HEXDIG, Cat (Ch 58 58) h16,
        flow_port], [Rep 0 1 HEXDIG, dcolon, flow_port]], []]])
      else
      if s = 75 then ([-128, 58, 59], [[[], [[Cat (Ch 58 58) h16, Ch 95 95], [dcolon, Ch 95 95]],
        [[Cat (Ch 58 58) h16, flow_port], [dcolon, flow_port]], []]])
      else
      if s = 76 then ([-128, 48, 58, 59, 65, 71, 97, 103], [[[], [[h16, Ch 95 95], [Ch 58 58, Ch
        95 95]], [[h16, flow_port], [Ch 58 58, flow_port]], []]])
      else
      if s = 77 then ([-128, 48, 58, 65, 71, 95, 96, 97, 103], [[[], [[Rep 0 3 HEXDIG, Ch 95 95]],
        [[Rep 0 3 HEXDIG, flow_port]], []]])
      else
      if s = 78 then ([-128, 48, 58, 65, 71, 95, 96, 97, 103], [[[], [[Rep 0 2 HEXDIG, Ch 95 95]],
        [[Rep 0 2 HEXDIG, flow_port]], []]])
      else
      if s = 79 then ([-128, 48, 58, 65, 71, 95, 96, 97, 103], [[[], [[Rep 0 1 HEXDIG, Ch 95 95]],
        [[Rep 0 1 HEXDIG, flow_port]], []]])
      else
      if s = 80 then ([-128, 46, 47, 48, 58, 59, 65, 71, 97, 103], [[[], [[Rep 0 3 HEXDIG, Cat (Ch
        58 58) h16, Ch 95 95], [Cat (Ch 46 46) (Cat dec_octet (Cat (Ch 46 46) (Cat dec_octet (Cat
        (Ch 46 46) dec_octet)))), Ch 95 95], [DIGIT, Cat (Ch 46 46) (Cat dec_octet (Cat (Ch 46 46)
        (Cat dec_octet (Cat (Ch 46 46) dec_octet)))), Ch 95 95], [Rep 2 2 DIGIT, Cat (Ch 46 46)
        (Cat dec_octet (Cat (Ch 46 46) (Cat dec_octet (Cat (Ch 46 46) dec_octet)))), Ch 95 95],
        [Rep 0 3 HEXDIG, dcolon, Ch 95 95]], [[Rep 0 3 HEXDIG, Cat (Ch 58 58) h16, flow_port],
        [Cat (Ch 46 46) (Cat dec_octet (Cat (Ch 46 46) (Cat dec_octet (Cat (Ch 46 46)
        dec_octet)))), flow_port], [DIGIT, Cat (Ch 46 46) (Cat dec_octet (Cat (Ch 46 46) (Cat
        dec_octet (Cat (Ch 46 46) dec_octet)))), flow_port], [Rep 2 2 DIGIT, Cat (Ch 46 46) (Cat
        dec_octet (Cat (Ch 46 46) (Cat dec_octet (Cat (Ch 46 46) dec_octet)))), flow_port], [Rep 0
        3 HEXDIG, dcolon, flow_port]], []]])
      else
      if s = 81 then ([-128, 46, 47, 48, 58, 59, 65, 71, 97, 103], [[[], [[Rep 0 2 HEXDIG, Cat (Ch
        58 58) h16, Ch 95 95], [Cat (Ch 46 46) (Cat dec_octet (Cat (Ch 46 46) (Cat dec_octet (Cat
        (Ch 46 46) dec_octet)))), Ch 95 95], [DIGIT, Cat (Ch 46 46) (Cat dec_octet (Cat (Ch 46 46)
        (Cat dec_octet (Cat (Ch 46 46) dec_octet)))), Ch 95 95], [Rep 0 2 HEXDIG, dcolon, Ch 95
        95]], [[Rep 0 2 HEXDIG, Cat (Ch 58 58) h16, flow_port], [Cat (Ch 46 46) (Cat dec_octet
        (Cat (Ch 46 46) (Cat dec_octet (Cat (Ch 46 46) dec_octet)))), flow_port], [DIGIT, Cat (Ch
        46 46) (Cat dec_octet (Cat (Ch 46 46) (Cat dec_octet (Cat (Ch 46 46) dec_octet)))),
        flow_port], [Rep 0 2 HEXDIG, dcolon, flow_port]], []]])
      else
      if s = 82 then ([-128, 46, 47, 48, 58, 59, 65, 71, 97, 103], [[[], [[Rep 0 1 HEXDIG, Cat (Ch
        58 58) h16, Ch 95 95], [Cat (Ch 46 46) (Cat dec_octet (Cat (Ch 46 46) (Cat dec_octet (Cat
        (Ch 46 46) dec_octet)))), Ch 95 95], [Rep 0 1 HEXDIG, dcolon, Ch 95 95]], [[Rep 0 1
        HEXDIG, Cat (Ch 58 58) h16, flow_port], [Cat (Ch 46 46) (Cat dec_octet (Cat (Ch 46 46)
        (Cat dec_octet (Cat (Ch 46 46) dec_octet)))), flow_port], [Rep 0 1 HEXDIG, dcolon,
        flow_port]], []]])
      else
      if s = 83 then ([-128, 46, 47, 48, 53, 54, 58, 59, 65, 71, 97, 103], [[[], [[Rep 0 3 HEXDIG,
        Cat (Ch 58 58) h16, Ch 95 95], [Cat (Ch 46 46) (Cat dec_octet (Cat (Ch 46 46) (Cat
        dec_octet (Cat (Ch 46 46) dec_octet)))), Ch 95 95], [DIGIT, Cat (Ch 46 46) (Cat dec_octet
        (Cat (Ch 46 46) (Cat dec_octet (Cat (Ch 46 46) dec_octet)))), Ch 95 95], [Cat (Ch 48 52)
        DIGIT, Cat (Ch 46 46) (Cat dec_octet (Cat (Ch 46 46) (Cat dec_octet (Cat (Ch 46 46)
        dec_octet)))), Ch 95 95], [Cat (Ch 53 53) (Ch 48 53), Cat (Ch 46 46) (Cat dec_octet (Cat
        (Ch 46 46) (Cat dec_octet (Cat (Ch 46 46) dec_octet)))), Ch 95 95], [Rep 0 3 HEXDIG,
        dcolon, Ch 95 95]], [[Rep 0 3 HEXDIG, Cat (Ch 58 58) h16, flow_port], [Cat (Ch 46 46) (Cat
        dec_octet (Cat (Ch 46 46) (Cat dec_octet (Cat (Ch 46 46) dec_octet)))), flow_port],
        [DIGIT, Cat (Ch 46 46) (Cat dec_octet (Cat (Ch 46 46) (Cat dec_octet (Cat (Ch 46 46)
        dec_octet)))), flow_port], [Cat (Ch 48 52) DIGIT, Cat (Ch 46 46) (Cat dec_octet (Cat (Ch
        46 46) (Cat dec_octet (Cat (Ch 46 46) dec_octet)))), flow_port], [Cat (Ch 53 53) (Ch 48
        53), Cat (Ch 46 46) (Cat dec_octet (Cat (Ch 46 46) (Cat dec_octet (Cat (Ch 46 46)
        dec_octet)))), flow_port], [Rep 0 3 HEXDIG, dcolon, flow_port]], []]])
      else
      ([-128, 46, 47, 48, 54, 58, 59, 65, 71, 97, 103], [[[], [[Rep 0 2 HEXDIG, Cat (Ch 58 58)
        h16, Ch 95 95], [Cat (Ch 46 46) (Cat dec_octet (Cat (Ch 46 46) (Cat dec_octet (Cat (Ch 46
        46) dec_octet)))), Ch 95 95], [Ch 48 53, Cat (Ch 46 46) (Cat dec_octet (Cat (Ch 46 46)
        (Cat dec_octet (Cat (Ch 46 46) dec_octet)))), Ch 95 95], [Rep 0 2 HEXDIG, dcolon, Ch 95
        95]], [[Rep 0 2 HEXDIG, Cat (Ch 58 58) h16, flow_port], [Cat (Ch 46 46) (Cat dec_octet
        (Cat (Ch 46 46) (Cat dec_octet (Cat (Ch 46 46) dec_octet)))), flow_port], [Ch 48 53, Cat
        (Ch 46 46) (Cat dec_octet (Cat (Ch 46 46) (Cat dec_octet (Cat (Ch 46 46) dec_octet)))),
        flow_port], [Rep 0 2 HEXDIG, dcolon, flow_port]], []]]))"

definition flow_expects_8 :: certificate where
  "flow_expects_8 s =
     (if s = 85 then ([-128, 46, 47, 48, 58, 59, 65, 71, 97, 103], [[[], [[Rep 0 2 HEXDIG, Cat (Ch
        58 58) h16, Ch 95 95], [Cat (Ch 46 46) (Cat dec_octet (Cat (Ch 46 46) (Cat dec_octet (Cat
        (Ch 46 46) dec_octet)))), Ch 95 95], [Rep 0 2 HEXDIG, dcolon, Ch 95 95]], [[Rep 0 2
        HEXDIG, Cat (Ch 58 58) h16, flow_port], [Cat (Ch 46 46) (Cat dec_octet (Cat (Ch 46 46)
        (Cat dec_octet (Cat (Ch 46 46) dec_octet)))), flow_port], [Rep 0 2 HEXDIG, dcolon,
        flow_port]], []]])
      else
      if s = 86 then ([-128, 46, 47, 48, 58, 59, 65, 71, 97, 103], [[[], [[Rep 0 3 HEXDIG, Cat (Ch
        58 58) h16, Ch 95 95], [Cat (Ch 46 46) (Cat dec_octet (Cat (Ch 46 46) (Cat dec_octet (Cat
        (Ch 46 46) dec_octet)))), Ch 95 95], [DIGIT, Cat (Ch 46 46) (Cat dec_octet (Cat (Ch 46 46)
        (Cat dec_octet (Cat (Ch 46 46) dec_octet)))), Ch 95 95], [Rep 0 3 HEXDIG, dcolon, Ch 95
        95]], [[Rep 0 3 HEXDIG, Cat (Ch 58 58) h16, flow_port], [Cat (Ch 46 46) (Cat dec_octet
        (Cat (Ch 46 46) (Cat dec_octet (Cat (Ch 46 46) dec_octet)))), flow_port], [DIGIT, Cat (Ch
        46 46) (Cat dec_octet (Cat (Ch 46 46) (Cat dec_octet (Cat (Ch 46 46) dec_octet)))),
        flow_port], [Rep 0 3 HEXDIG, dcolon, flow_port]], []]])
      else
      if s = 87 then ([-128, 48, 58, 65, 71, 95, 96, 97, 103], [[[], [[h16, Ch 95 95], [Ch 95
        95]], [[h16, flow_port], [flow_port]], []]])
      else
      if s = 88 then ([-128, 48, 58, 59, 65, 71, 97, 103], [[[], [[Rep 0 3 HEXDIG, Cat (Ch 58 58)
        h16, Ch 95 95], [Rep 0 3 HEXDIG, dcolon, Ch 95 95]], [[Rep 0 3 HEXDIG, Cat (Ch 58 58) h16,
        flow_port], [Rep 0 3 HEXDIG, dcolon, flow_port]], []]])
      else
      if s = 89 then ([-128, 48, 49, 50, 51, 58, 65, 71, 95, 96, 97, 103], [[[], [[ls32, Ch 95
        95], [h16, Ch 95 95], [Ch 95 95]], [[ls32, flow_port], [h16, flow_port], [flow_port]],
        []]])
      else
      if s = 90 then ([-128, 46, 47, 48, 58, 59, 65, 71, 95, 96, 97, 103], [[[], [[Rep 0 3 HEXDIG,
        Cat (Ch 58 58) h16, Ch 95 95], [Cat (Ch 46 46) (Cat dec_octet (Cat (Ch 46 46) (Cat
        dec_octet (Cat (Ch 46 46) dec_octet)))), Ch 95 95], [Rep 0 3 HEXDIG, Ch 95 95]], [[Rep 0 3
        HEXDIG, Cat (Ch 58 58) h16, flow_port], [Cat (Ch 46 46) (Cat dec_octet (Cat (Ch 46 46)
        (Cat dec_octet (Cat (Ch 46 46) dec_octet)))), flow_port], [Rep 0 3 HEXDIG, flow_port]],
        []]])
      else
      if s = 91 then ([-128, 48, 58, 59, 65, 71, 95, 96, 97, 103], [[[], [[Rep 0 2 HEXDIG, Cat (Ch
        58 58) h16, Ch 95 95], [Rep 0 2 HEXDIG, Ch 95 95]], [[Rep 0 2 HEXDIG, Cat (Ch 58 58) h16,
        flow_port], [Rep 0 2 HEXDIG, flow_port]], []]])
      else
      if s = 92 then ([-128, 48, 58, 59, 65, 71, 95, 96, 97, 103], [[[], [[Rep 0 1 HEXDIG, Cat (Ch
        58 58) h16, Ch 95 95], [Rep 0 1 HEXDIG, Ch 95 95]], [[Rep 0 1 HEXDIG, Cat (Ch 58 58) h16,
        flow_port], [Rep 0 1 HEXDIG, flow_port]], []]])
      else
      if s = 93 then ([-128, 58, 59, 95, 96], [[[], [[Cat (Ch 58 58) h16, Ch 95 95], [Ch 95 95]],
        [[Cat (Ch 58 58) h16, flow_port], [flow_port]], []]])
      else
      if s = 94 then ([-128, 48, 58, 65, 71, 97, 103], [[[], [[h16, Ch 95 95]], [[h16,
        flow_port]], []]])
      else
      if s = 95 then ([-128, 46, 47, 48, 58, 59, 65, 71, 95, 96, 97, 103], [[[], [[Rep 0 3 HEXDIG,
        Cat (Ch 58 58) h16, Ch 95 95], [Cat (Ch 46 46) (Cat dec_octet (Cat (Ch 46 46) (Cat
        dec_octet (Cat (Ch 46 46) dec_octet)))), Ch 95 95], [DIGIT, Cat (Ch 46 46) (Cat dec_octet
        (Cat (Ch 46 46) (Cat dec_octet (Cat (Ch 46 46) dec_octet)))), Ch 95 95], [Rep 2 2 DIGIT,
        Cat (Ch 46 46) (Cat dec_octet (Cat (Ch 46 46) (Cat dec_octet (Cat (Ch 46 46)
        dec_octet)))), Ch 95 95], [Rep 0 3 HEXDIG, Ch 95 95]], [[Rep 0 3 HEXDIG, Cat (Ch 58 58)
        h16, flow_port], [Cat (Ch 46 46) (Cat dec_octet (Cat (Ch 46 46) (Cat dec_octet (Cat (Ch 46
        46) dec_octet)))), flow_port], [DIGIT, Cat (Ch 46 46) (Cat dec_octet (Cat (Ch 46 46) (Cat
        dec_octet (Cat (Ch 46 46) dec_octet)))), flow_port], [Rep 2 2 DIGIT, Cat (Ch 46 46) (Cat
        dec_octet (Cat (Ch 46 46) (Cat dec_octet (Cat (Ch 46 46) dec_octet)))), flow_port], [Rep 0
        3 HEXDIG, flow_port]], []]])
      else
      ([-128, 46, 47, 48, 58, 59, 65, 71, 95, 96, 97, 103], [[[], [[Rep 0 2 HEXDIG, Cat (Ch 58 58)
        h16, Ch 95 95], [Cat (Ch 46 46) (Cat dec_octet (Cat (Ch 46 46) (Cat dec_octet (Cat (Ch 46
        46) dec_octet)))), Ch 95 95], [DIGIT, Cat (Ch 46 46) (Cat dec_octet (Cat (Ch 46 46) (Cat
        dec_octet (Cat (Ch 46 46) dec_octet)))), Ch 95 95], [Rep 0 2 HEXDIG, Ch 95 95]], [[Rep 0 2
        HEXDIG, Cat (Ch 58 58) h16, flow_port], [Cat (Ch 46 46) (Cat dec_octet (Cat (Ch 46 46)
        (Cat dec_octet (Cat (Ch 46 46) dec_octet)))), flow_port], [DIGIT, Cat (Ch 46 46) (Cat
        dec_octet (Cat (Ch 46 46) (Cat dec_octet (Cat (Ch 46 46) dec_octet)))), flow_port], [Rep 0
        2 HEXDIG, flow_port]], []]]))"

definition flow_expects_9 :: certificate where
  "flow_expects_9 s =
     (if s = 97 then ([-128, 46, 47, 48, 58, 59, 65, 71, 95, 96, 97, 103], [[[], [[Rep 0 1 HEXDIG,
        Cat (Ch 58 58) h16, Ch 95 95], [Cat (Ch 46 46) (Cat dec_octet (Cat (Ch 46 46) (Cat
        dec_octet (Cat (Ch 46 46) dec_octet)))), Ch 95 95], [Rep 0 1 HEXDIG, Ch 95 95]], [[Rep 0 1
        HEXDIG, Cat (Ch 58 58) h16, flow_port], [Cat (Ch 46 46) (Cat dec_octet (Cat (Ch 46 46)
        (Cat dec_octet (Cat (Ch 46 46) dec_octet)))), flow_port], [Rep 0 1 HEXDIG, flow_port]],
        []]])
      else
      if s = 98 then ([-128, 46, 47, 48, 53, 54, 58, 59, 65, 71, 95, 96, 97, 103], [[[], [[Rep 0 3
        HEXDIG, Cat (Ch 58 58) h16, Ch 95 95], [Cat (Ch 46 46) (Cat dec_octet (Cat (Ch 46 46) (Cat
        dec_octet (Cat (Ch 46 46) dec_octet)))), Ch 95 95], [DIGIT, Cat (Ch 46 46) (Cat dec_octet
        (Cat (Ch 46 46) (Cat dec_octet (Cat (Ch 46 46) dec_octet)))), Ch 95 95], [Cat (Ch 48 52)
        DIGIT, Cat (Ch 46 46) (Cat dec_octet (Cat (Ch 46 46) (Cat dec_octet (Cat (Ch 46 46)
        dec_octet)))), Ch 95 95], [Cat (Ch 53 53) (Ch 48 53), Cat (Ch 46 46) (Cat dec_octet (Cat
        (Ch 46 46) (Cat dec_octet (Cat (Ch 46 46) dec_octet)))), Ch 95 95], [Rep 0 3 HEXDIG, Ch 95
        95]], [[Rep 0 3 HEXDIG, Cat (Ch 58 58) h16, flow_port], [Cat (Ch 46 46) (Cat dec_octet
        (Cat (Ch 46 46) (Cat dec_octet (Cat (Ch 46 46) dec_octet)))), flow_port], [DIGIT, Cat (Ch
        46 46) (Cat dec_octet (Cat (Ch 46 46) (Cat dec_octet (Cat (Ch 46 46) dec_octet)))),
        flow_port], [Cat (Ch 48 52) DIGIT, Cat (Ch 46 46) (Cat dec_octet (Cat (Ch 46 46) (Cat
        dec_octet (Cat (Ch 46 46) dec_octet)))), flow_port], [Cat (Ch 53 53) (Ch 48 53), Cat (Ch
        46 46) (Cat dec_octet (Cat (Ch 46 46) (Cat dec_octet (Cat (Ch 46 46) dec_octet)))),
        flow_port], [Rep 0 3 HEXDIG, flow_port]], []]])
      else
      if s = 99 then ([-128, 46, 47, 48, 54, 58, 59, 65, 71, 95, 96, 97, 103], [[[], [[Rep 0 2
        HEXDIG, Cat (Ch 58 58) h16, Ch 95 95], [Cat (Ch 46 46) (Cat dec_octet (Cat (Ch 46 46) (Cat
        dec_octet (Cat (Ch 46 46) dec_octet)))), Ch 95 95], [Ch 48 53, Cat (Ch 46 46) (Cat
        dec_octet (Cat (Ch 46 46) (Cat dec_octet (Cat (Ch 46 46) dec_octet)))), Ch 95 95], [Rep 0
        2 HEXDIG, Ch 95 95]], [[Rep 0 2 HEXDIG, Cat (Ch 58 58) h16, flow_port], [Cat (Ch 46 46)
        (Cat dec_octet (Cat (Ch 46 46) (Cat dec_octet (Cat (Ch 46 46) dec_octet)))), flow_port],
        [Ch 48 53, Cat (Ch 46 46) (Cat dec_octet (Cat (Ch 46 46) (Cat dec_octet (Cat (Ch 46 46)
        dec_octet)))), flow_port], [Rep 0 2 HEXDIG, flow_port]], []]])
      else
      if s = 100 then ([-128, 46, 47, 48, 58, 59, 65, 71, 95, 96, 97, 103], [[[], [[Rep 0 2
        HEXDIG, Cat (Ch 58 58) h16, Ch 95 95], [Cat (Ch 46 46) (Cat dec_octet (Cat (Ch 46 46) (Cat
        dec_octet (Cat (Ch 46 46) dec_octet)))), Ch 95 95], [Rep 0 2 HEXDIG, Ch 95 95]], [[Rep 0 2
        HEXDIG, Cat (Ch 58 58) h16, flow_port], [Cat (Ch 46 46) (Cat dec_octet (Cat (Ch 46 46)
        (Cat dec_octet (Cat (Ch 46 46) dec_octet)))), flow_port], [Rep 0 2 HEXDIG, flow_port]],
        []]])
      else
      if s = 101 then ([-128, 46, 47, 48, 58, 59, 65, 71, 95, 96, 97, 103], [[[], [[Rep 0 3
        HEXDIG, Cat (Ch 58 58) h16, Ch 95 95], [Cat (Ch 46 46) (Cat dec_octet (Cat (Ch 46 46) (Cat
        dec_octet (Cat (Ch 46 46) dec_octet)))), Ch 95 95], [DIGIT, Cat (Ch 46 46) (Cat dec_octet
        (Cat (Ch 46 46) (Cat dec_octet (Cat (Ch 46 46) dec_octet)))), Ch 95 95], [Rep 0 3 HEXDIG,
        Ch 95 95]], [[Rep 0 3 HEXDIG, Cat (Ch 58 58) h16, flow_port], [Cat (Ch 46 46) (Cat
        dec_octet (Cat (Ch 46 46) (Cat dec_octet (Cat (Ch 46 46) dec_octet)))), flow_port],
        [DIGIT, Cat (Ch 46 46) (Cat dec_octet (Cat (Ch 46 46) (Cat dec_octet (Cat (Ch 46 46)
        dec_octet)))), flow_port], [Rep 0 3 HEXDIG, flow_port]], []]])
      else
      if s = 102 then ([-128, 48, 58, 59, 65, 71, 95, 96, 97, 103], [[[], [[Rep 0 3 HEXDIG, Cat
        (Ch 58 58) h16, Ch 95 95], [Rep 0 3 HEXDIG, Ch 95 95]], [[Rep 0 3 HEXDIG, Cat (Ch 58 58)
        h16, flow_port], [Rep 0 3 HEXDIG, flow_port]], []]])
      else
      if s = 103 then ([-128, 48, 49, 50, 51, 58, 65, 71, 95, 96, 97, 103], [[[], [[Cat h16_colon
        ls32, Ch 95 95], [ls32, Ch 95 95], [h16, Ch 95 95], [Ch 95 95]], [[Cat h16_colon ls32,
        flow_port], [ls32, flow_port], [h16, flow_port], [flow_port]], []]])
      else
      if s = 104 then ([-128, 46, 47, 48, 58, 59, 65, 71, 95, 96, 97, 103], [[[], [[Rep 0 3
        HEXDIG, Ch 58 58, ls32, Ch 95 95], [Rep 0 3 HEXDIG, Cat (Ch 58 58) h16, Ch 95 95], [Cat
        (Ch 46 46) (Cat dec_octet (Cat (Ch 46 46) (Cat dec_octet (Cat (Ch 46 46) dec_octet)))), Ch
        95 95], [Rep 0 3 HEXDIG, Ch 95 95]], [[Rep 0 3 HEXDIG, Ch 58 58, ls32, flow_port], [Rep 0
        3 HEXDIG, Cat (Ch 58 58) h16, flow_port], [Cat (Ch 46 46) (Cat dec_octet (Cat (Ch 46 46)
        (Cat dec_octet (Cat (Ch 46 46) dec_octet)))), flow_port], [Rep 0 3 HEXDIG, flow_port]],
        []]])
      else
      if s = 105 then ([-128, 48, 58, 59, 65, 71, 95, 96, 97, 103], [[[], [[Rep 0 2 HEXDIG, Ch 58
        58, ls32, Ch 95 95], [Rep 0 2 HEXDIG, Cat (Ch 58 58) h16, Ch 95 95], [Rep 0 2 HEXDIG, Ch
        95 95]], [[Rep 0 2 HEXDIG, Ch 58 58, ls32, flow_port], [Rep 0 2 HEXDIG, Cat (Ch 58 58)
        h16, flow_port], [Rep 0 2 HEXDIG, flow_port]], []]])
      else
      if s = 106 then ([-128, 48, 58, 59, 65, 71, 95, 96, 97, 103], [[[], [[Rep 0 1 HEXDIG, Ch 58
        58, ls32, Ch 95 95], [Rep 0 1 HEXDIG, Cat (Ch 58 58) h16, Ch 95 95], [Rep 0 1 HEXDIG, Ch
        95 95]], [[Rep 0 1 HEXDIG, Ch 58 58, ls32, flow_port], [Rep 0 1 HEXDIG, Cat (Ch 58 58)
        h16, flow_port], [Rep 0 1 HEXDIG, flow_port]], []]])
      else
      if s = 107 then ([-128, 58, 59, 95, 96], [[[], [[Ch 58 58, ls32, Ch 95 95], [Cat (Ch 58 58)
        h16, Ch 95 95], [Ch 95 95]], [[Ch 58 58, ls32, flow_port], [Cat (Ch 58 58) h16,
        flow_port], [flow_port]], []]])
      else
      ([-128, 48, 49, 50, 51, 58, 65, 71, 97, 103], [[[], [[ls32, Ch 95 95], [h16, Ch 95 95]],
        [[ls32, flow_port], [h16, flow_port]], []]]))"

definition flow_expects_10 :: certificate where
  "flow_expects_10 s =
     (if s = 109 then ([-128, 46, 47, 48, 58, 59, 65, 71, 95, 96, 97, 103], [[[], [[Rep 0 3
        HEXDIG, Ch 58 58, ls32, Ch 95 95], [Rep 0 3 HEXDIG, Cat (Ch 58 58) h16, Ch 95 95], [Cat
        (Ch 46 46) (Cat dec_octet (Cat (Ch 46 46) (Cat dec_octet (Cat (Ch 46 46) dec_octet)))), Ch
        95 95], [DIGIT, Cat (Ch 46 46) (Cat dec_octet (Cat (Ch 46 46) (Cat dec_octet (Cat (Ch 46
        46) dec_octet)))), Ch 95 95], [Rep 2 2 DIGIT, Cat (Ch 46 46) (Cat dec_octet (Cat (Ch 46
        46) (Cat dec_octet (Cat (Ch 46 46) dec_octet)))), Ch 95 95], [Rep 0 3 HEXDIG, Ch 95 95]],
        [[Rep 0 3 HEXDIG, Ch 58 58, ls32, flow_port], [Rep 0 3 HEXDIG, Cat (Ch 58 58) h16,
        flow_port], [Cat (Ch 46 46) (Cat dec_octet (Cat (Ch 46 46) (Cat dec_octet (Cat (Ch 46 46)
        dec_octet)))), flow_port], [DIGIT, Cat (Ch 46 46) (Cat dec_octet (Cat (Ch 46 46) (Cat
        dec_octet (Cat (Ch 46 46) dec_octet)))), flow_port], [Rep 2 2 DIGIT, Cat (Ch 46 46) (Cat
        dec_octet (Cat (Ch 46 46) (Cat dec_octet (Cat (Ch 46 46) dec_octet)))), flow_port], [Rep 0
        3 HEXDIG, flow_port]], []]])
      else
      if s = 110 then ([-128, 46, 47, 48, 58, 59, 65, 71, 95, 96, 97, 103], [[[], [[Rep 0 2
        HEXDIG, Ch 58 58, ls32, Ch 95 95], [Rep 0 2 HEXDIG, Cat (Ch 58 58) h16, Ch 95 95], [Cat
        (Ch 46 46) (Cat dec_octet (Cat (Ch 46 46) (Cat dec_octet (Cat (Ch 46 46) dec_octet)))), Ch
        95 95], [DIGIT, Cat (Ch 46 46) (Cat dec_octet (Cat (Ch 46 46) (Cat dec_octet (Cat (Ch 46
        46) dec_octet)))), Ch 95 95], [Rep 0 2 HEXDIG, Ch 95 95]], [[Rep 0 2 HEXDIG, Ch 58 58,
        ls32, flow_port], [Rep 0 2 HEXDIG, Cat (Ch 58 58) h16, flow_port], [Cat (Ch 46 46) (Cat
        dec_octet (Cat (Ch 46 46) (Cat dec_octet (Cat (Ch 46 46) dec_octet)))), flow_port],
        [DIGIT, Cat (Ch 46 46) (Cat dec_octet (Cat (Ch 46 46) (Cat dec_octet (Cat (Ch 46 46)
        dec_octet)))), flow_port], [Rep 0 2 HEXDIG, flow_port]], []]])
      else
      if s = 111 then ([-128, 46, 47, 48, 58, 59, 65, 71, 95, 96, 97, 103], [[[], [[Rep 0 1
        HEXDIG, Ch 58 58, ls32, Ch 95 95], [Rep 0 1 HEXDIG, Cat (Ch 58 58) h16, Ch 95 95], [Cat
        (Ch 46 46) (Cat dec_octet (Cat (Ch 46 46) (Cat dec_octet (Cat (Ch 46 46) dec_octet)))), Ch
        95 95], [Rep 0 1 HEXDIG, Ch 95 95]], [[Rep 0 1 HEXDIG, Ch 58 58, ls32, flow_port], [Rep 0
        1 HEXDIG, Cat (Ch 58 58) h16, flow_port], [Cat (Ch 46 46) (Cat dec_octet (Cat (Ch 46 46)
        (Cat dec_octet (Cat (Ch 46 46) dec_octet)))), flow_port], [Rep 0 1 HEXDIG, flow_port]],
        []]])
      else
      if s = 112 then ([-128, 46, 47, 48, 53, 54, 58, 59, 65, 71, 95, 96, 97, 103], [[[], [[Rep 0
        3 HEXDIG, Ch 58 58, ls32, Ch 95 95], [Rep 0 3 HEXDIG, Cat (Ch 58 58) h16, Ch 95 95], [Cat
        (Ch 46 46) (Cat dec_octet (Cat (Ch 46 46) (Cat dec_octet (Cat (Ch 46 46) dec_octet)))), Ch
        95 95], [DIGIT, Cat (Ch 46 46) (Cat dec_octet (Cat (Ch 46 46) (Cat dec_octet (Cat (Ch 46
        46) dec_octet)))), Ch 95 95], [Cat (Ch 48 52) DIGIT, Cat (Ch 46 46) (Cat dec_octet (Cat
        (Ch 46 46) (Cat dec_octet (Cat (Ch 46 46) dec_octet)))), Ch 95 95], [Cat (Ch 53 53) (Ch 48
        53), Cat (Ch 46 46) (Cat dec_octet (Cat (Ch 46 46) (Cat dec_octet (Cat (Ch 46 46)
        dec_octet)))), Ch 95 95], [Rep 0 3 HEXDIG, Ch 95 95]], [[Rep 0 3 HEXDIG, Ch 58 58, ls32,
        flow_port], [Rep 0 3 HEXDIG, Cat (Ch 58 58) h16, flow_port], [Cat (Ch 46 46) (Cat
        dec_octet (Cat (Ch 46 46) (Cat dec_octet (Cat (Ch 46 46) dec_octet)))), flow_port],
        [DIGIT, Cat (Ch 46 46) (Cat dec_octet (Cat (Ch 46 46) (Cat dec_octet (Cat (Ch 46 46)
        dec_octet)))), flow_port], [Cat (Ch 48 52) DIGIT, Cat (Ch 46 46) (Cat dec_octet (Cat (Ch
        46 46) (Cat dec_octet (Cat (Ch 46 46) dec_octet)))), flow_port], [Cat (Ch 53 53) (Ch 48
        53), Cat (Ch 46 46) (Cat dec_octet (Cat (Ch 46 46) (Cat dec_octet (Cat (Ch 46 46)
        dec_octet)))), flow_port], [Rep 0 3 HEXDIG, flow_port]], []]])
      else
      if s = 113 then ([-128, 46, 47, 48, 54, 58, 59, 65, 71, 95, 96, 97, 103], [[[], [[Rep 0 2
        HEXDIG, Ch 58 58, ls32, Ch 95 95], [Rep 0 2 HEXDIG, Cat (Ch 58 58) h16, Ch 95 95], [Cat
        (Ch 46 46) (Cat dec_octet (Cat (Ch 46 46) (Cat dec_octet (Cat (Ch 46 46) dec_octet)))), Ch
        95 95], [Ch 48 53, Cat (Ch 46 46) (Cat dec_octet (Cat (Ch 46 46) (Cat dec_octet (Cat (Ch
        46 46) dec_octet)))), Ch 95 95], [Rep 0 2 HEXDIG, Ch 95 95]], [[Rep 0 2 HEXDIG, Ch 58 58,
        ls32, flow_port], [Rep 0 2 HEXDIG, Cat (Ch 58 58) h16, flow_port], [Cat (Ch 46 46) (Cat
        dec_octet (Cat (Ch 46 46) (Cat dec_octet (Cat (Ch 46 46) dec_octet)))), flow_port], [Ch 48
        53, Cat (Ch 46 46) (Cat dec_octet (Cat (Ch 46 46) (Cat dec_octet (Cat (Ch 46 46)
        dec_octet)))), flow_port], [Rep 0 2 HEXDIG, flow_port]], []]])
      else
      if s = 114 then ([-128, 46, 47, 48, 58, 59, 65, 71, 95, 96, 97, 103], [[[], [[Rep 0 2
        HEXDIG, Ch 58 58, ls32, Ch 95 95], [Rep 0 2 HEXDIG, Cat (Ch 58 58) h16, Ch 95 95], [Cat
        (Ch 46 46) (Cat dec_octet (Cat (Ch 46 46) (Cat dec_octet (Cat (Ch 46 46) dec_octet)))), Ch
        95 95], [Rep 0 2 HEXDIG, Ch 95 95]], [[Rep 0 2 HEXDIG, Ch 58 58, ls32, flow_port], [Rep 0
        2 HEXDIG, Cat (Ch 58 58) h16, flow_port], [Cat (Ch 46 46) (Cat dec_octet (Cat (Ch 46 46)
        (Cat dec_octet (Cat (Ch 46 46) dec_octet)))), flow_port], [Rep 0 2 HEXDIG, flow_port]],
        []]])
      else
      if s = 115 then ([-128, 46, 47, 48, 58, 59, 65, 71, 95, 96, 97, 103], [[[], [[Rep 0 3
        HEXDIG, Ch 58 58, ls32, Ch 95 95], [Rep 0 3 HEXDIG, Cat (Ch 58 58) h16, Ch 95 95], [Cat
        (Ch 46 46) (Cat dec_octet (Cat (Ch 46 46) (Cat dec_octet (Cat (Ch 46 46) dec_octet)))), Ch
        95 95], [DIGIT, Cat (Ch 46 46) (Cat dec_octet (Cat (Ch 46 46) (Cat dec_octet (Cat (Ch 46
        46) dec_octet)))), Ch 95 95], [Rep 0 3 HEXDIG, Ch 95 95]], [[Rep 0 3 HEXDIG, Ch 58 58,
        ls32, flow_port], [Rep 0 3 HEXDIG, Cat (Ch 58 58) h16, flow_port], [Cat (Ch 46 46) (Cat
        dec_octet (Cat (Ch 46 46) (Cat dec_octet (Cat (Ch 46 46) dec_octet)))), flow_port],
        [DIGIT, Cat (Ch 46 46) (Cat dec_octet (Cat (Ch 46 46) (Cat dec_octet (Cat (Ch 46 46)
        dec_octet)))), flow_port], [Rep 0 3 HEXDIG, flow_port]], []]])
      else
      if s = 116 then ([-128, 48, 58, 59, 65, 71, 95, 96, 97, 103], [[[], [[Rep 0 3 HEXDIG, Ch 58
        58, ls32, Ch 95 95], [Rep 0 3 HEXDIG, Cat (Ch 58 58) h16, Ch 95 95], [Rep 0 3 HEXDIG, Ch
        95 95]], [[Rep 0 3 HEXDIG, Ch 58 58, ls32, flow_port], [Rep 0 3 HEXDIG, Cat (Ch 58 58)
        h16, flow_port], [Rep 0 3 HEXDIG, flow_port]], []]])
      else
      if s = 117 then ([-128, 48, 49, 50, 51, 58, 65, 71, 95, 96, 97, 103], [[[], [[Cat (Rep 2 2
        h16_colon) ls32, Ch 95 95], [Cat h16_colon ls32, Ch 95 95], [ls32, Ch 95 95], [h16, Ch 95
        95], [Ch 95 95]], [[Cat (Rep 2 2 h16_colon) ls32, flow_port], [Cat h16_colon ls32,
        flow_port], [ls32, flow_port], [h16, flow_port], [flow_port]], []]])
      else
      if s = 118 then ([-128, 46, 47, 48, 58, 59, 65, 71, 95, 96, 97, 103], [[[], [[Rep 0 3
        HEXDIG, Ch 58 58, h16_colon, ls32, Ch 95 95], [Rep 0 3 HEXDIG, Ch 58 58, ls32, Ch 95 95],
        [Rep 0 3 HEXDIG, Cat (Ch 58 58) h16, Ch 95 95], [Cat (Ch 46 46) (Cat dec_octet (Cat (Ch 46
        46) (Cat dec_octet (Cat (Ch 46 46) dec_octet)))), Ch 95 95], [Rep 0 3 HEXDIG, Ch 95 95]],
        [[Rep 0 3 HEXDIG, Ch 58 58, h16_colon, ls32, flow_port], [Rep 0 3 HEXDIG, Ch 58 58, ls32,
        flow_port], [Rep 0 3 HEXDIG, Cat (Ch 58 58) h16, flow_port], [Cat (Ch 46 46) (Cat
        dec_octet (Cat (Ch 46 46) (Cat dec_octet (Cat (Ch 46 46) dec_octet)))), flow_port], [Rep 0
        3 HEXDIG, flow_port]], []]])
      else
      if s = 119 then ([-128, 48, 58, 59, 65, 71, 95, 96, 97, 103], [[[], [[Rep 0 2 HEXDIG, Ch 58
        58, h16_colon, ls32, Ch 95 95], [Rep 0 2 HEXDIG, Ch 58 58, ls32, Ch 95 95], [Rep 0 2
        HEXDIG, Cat (Ch 58 58) h16, Ch 95 95], [Rep 0 2 HEXDIG, Ch 95 95]], [[Rep 0 2 HEXDIG, Ch
        58 58, h16_colon, ls32, flow_port], [Rep 0 2 HEXDIG, Ch 58 58, ls32, flow_port], [Rep 0 2
        HEXDIG, Cat (Ch 58 58) h16, flow_port], [Rep 0 2 HEXDIG, flow_port]], []]])
      else
      ([-128, 48, 58, 59, 65, 71, 95, 96, 97, 103], [[[], [[Rep 0 1 HEXDIG, Ch 58 58, h16_colon,
        ls32, Ch 95 95], [Rep 0 1 HEXDIG, Ch 58 58, ls32, Ch 95 95], [Rep 0 1 HEXDIG, Cat (Ch 58
        58) h16, Ch 95 95], [Rep 0 1 HEXDIG, Ch 95 95]], [[Rep 0 1 HEXDIG, Ch 58 58, h16_colon,
        ls32, flow_port], [Rep 0 1 HEXDIG, Ch 58 58, ls32, flow_port], [Rep 0 1 HEXDIG, Cat (Ch 58
        58) h16, flow_port], [Rep 0 1 HEXDIG, flow_port]], []]]))"

definition flow_expects_11 :: certificate where
  "flow_expects_11 s =
     (if s = 121 then ([-128, 58, 59, 95, 96], [[[], [[Ch 58 58, h16_colon, ls32, Ch 95 95], [Ch
        58 58, ls32, Ch 95 95], [Cat (Ch 58 58) h16, Ch 95 95], [Ch 95 95]], [[Ch 58 58,
        h16_colon, ls32, flow_port], [Ch 58 58, ls32, flow_port], [Cat (Ch 58 58) h16, flow_port],
        [flow_port]], []]])
      else
      if s = 122 then ([-128, 48, 49, 50, 51, 58, 65, 71, 97, 103], [[[], [[h16_colon, ls32, Ch 95
        95], [ls32, Ch 95 95], [h16, Ch 95 95]], [[h16_colon, ls32, flow_port], [ls32, flow_port],
        [h16, flow_port]], []]])
      else
      if s = 123 then ([-128, 46, 47, 48, 58, 59, 65, 71, 95, 96, 97, 103], [[[], [[Rep 0 3
        HEXDIG, Ch 58 58, h16_colon, ls32, Ch 95 95], [Rep 0 3 HEXDIG, Ch 58 58, ls32, Ch 95 95],
        [Rep 0 3 HEXDIG, Cat (Ch 58 58) h16, Ch 95 95], [Cat (Ch 46 46) (Cat dec_octet (Cat (Ch 46
        46) (Cat dec_octet (Cat (Ch 46 46) dec_octet)))), Ch 95 95], [DIGIT, Cat (Ch 46 46) (Cat
        dec_octet (Cat (Ch 46 46) (Cat dec_octet (Cat (Ch 46 46) dec_octet)))), Ch 95 95], [Rep 2
        2 DIGIT, Cat (Ch 46 46) (Cat dec_octet (Cat (Ch 46 46) (Cat dec_octet (Cat (Ch 46 46)
        dec_octet)))), Ch 95 95], [Rep 0 3 HEXDIG, Ch 95 95]], [[Rep 0 3 HEXDIG, Ch 58 58,
        h16_colon, ls32, flow_port], [Rep 0 3 HEXDIG, Ch 58 58, ls32, flow_port], [Rep 0 3 HEXDIG,
        Cat (Ch 58 58) h16, flow_port], [Cat (Ch 46 46) (Cat dec_octet (Cat (Ch 46 46) (Cat
        dec_octet (Cat (Ch 46 46) dec_octet)))), flow_port], [DIGIT, Cat (Ch 46 46) (Cat dec_octet
        (Cat (Ch 46 46) (Cat dec_octet (Cat (Ch 46 46) dec_octet)))), flow_port], [Rep 2 2 DIGIT,
        Cat (Ch 46 46) (Cat dec_octet (Cat (Ch 46 46) (Cat dec_octet (Cat (Ch 46 46)
        dec_octet)))), flow_port], [Rep 0 3 HEXDIG, flow_port]], []]])
      else
      if s = 124 then ([-128, 46, 47, 48, 58, 59, 65, 71, 95, 96, 97, 103], [[[], [[Rep 0 2
        HEXDIG, Ch 58 58, h16_colon, ls32, Ch 95 95], [Rep 0 2 HEXDIG, Ch 58 58, ls32, Ch 95 95],
        [Rep 0 2 HEXDIG, Cat (Ch 58 58) h16, Ch 95 95], [Cat (Ch 46 46) (Cat dec_octet (Cat (Ch 46
        46) (Cat dec_octet (Cat (Ch 46 46) dec_octet)))), Ch 95 95], [DIGIT, Cat (Ch 46 46) (Cat
        dec_octet (Cat (Ch 46 46) (Cat dec_octet (Cat (Ch 46 46) dec_octet)))), Ch 95 95], [Rep 0
        2 HEXDIG, Ch 95 95]], [[Rep 0 2 HEXDIG, Ch 58 58, h16_colon, ls32, flow_port], [Rep 0 2
        HEXDIG, Ch 58 58, ls32, flow_port], [Rep 0 2 HEXDIG, Cat (Ch 58 58) h16, flow_port], [Cat
        (Ch 46 46) (Cat dec_octet (Cat (Ch 46 46) (Cat dec_octet (Cat (Ch 46 46) dec_octet)))),
        flow_port], [DIGIT, Cat (Ch 46 46) (Cat dec_octet (Cat (Ch 46 46) (Cat dec_octet (Cat (Ch
        46 46) dec_octet)))), flow_port], [Rep 0 2 HEXDIG, flow_port]], []]])
      else
      if s = 125 then ([-128, 46, 47, 48, 58, 59, 65, 71, 95, 96, 97, 103], [[[], [[Rep 0 1
        HEXDIG, Ch 58 58, h16_colon, ls32, Ch 95 95], [Rep 0 1 HEXDIG, Ch 58 58, ls32, Ch 95 95],
        [Rep 0 1 HEXDIG, Cat (Ch 58 58) h16, Ch 95 95], [Cat (Ch 46 46) (Cat dec_octet (Cat (Ch 46
        46) (Cat dec_octet (Cat (Ch 46 46) dec_octet)))), Ch 95 95], [Rep 0 1 HEXDIG, Ch 95 95]],
        [[Rep 0 1 HEXDIG, Ch 58 58, h16_colon, ls32, flow_port], [Rep 0 1 HEXDIG, Ch 58 58, ls32,
        flow_port], [Rep 0 1 HEXDIG, Cat (Ch 58 58) h16, flow_port], [Cat (Ch 46 46) (Cat
        dec_octet (Cat (Ch 46 46) (Cat dec_octet (Cat (Ch 46 46) dec_octet)))), flow_port], [Rep 0
        1 HEXDIG, flow_port]], []]])
      else
      if s = 126 then ([-128, 46, 47, 48, 53, 54, 58, 59, 65, 71, 95, 96, 97, 103], [[[], [[Rep 0
        3 HEXDIG, Ch 58 58, h16_colon, ls32, Ch 95 95], [Rep 0 3 HEXDIG, Ch 58 58, ls32, Ch 95
        95], [Rep 0 3 HEXDIG, Cat (Ch 58 58) h16, Ch 95 95], [Cat (Ch 46 46) (Cat dec_octet (Cat
        (Ch 46 46) (Cat dec_octet (Cat (Ch 46 46) dec_octet)))), Ch 95 95], [DIGIT, Cat (Ch 46 46)
        (Cat dec_octet (Cat (Ch 46 46) (Cat dec_octet (Cat (Ch 46 46) dec_octet)))), Ch 95 95],
        [Cat (Ch 48 52) DIGIT, Cat (Ch 46 46) (Cat dec_octet (Cat (Ch 46 46) (Cat dec_octet (Cat
        (Ch 46 46) dec_octet)))), Ch 95 95], [Cat (Ch 53 53) (Ch 48 53), Cat (Ch 46 46) (Cat
        dec_octet (Cat (Ch 46 46) (Cat dec_octet (Cat (Ch 46 46) dec_octet)))), Ch 95 95], [Rep 0
        3 HEXDIG, Ch 95 95]], [[Rep 0 3 HEXDIG, Ch 58 58, h16_colon, ls32, flow_port], [Rep 0 3
        HEXDIG, Ch 58 58, ls32, flow_port], [Rep 0 3 HEXDIG, Cat (Ch 58 58) h16, flow_port], [Cat
        (Ch 46 46) (Cat dec_octet (Cat (Ch 46 46) (Cat dec_octet (Cat (Ch 46 46) dec_octet)))),
        flow_port], [DIGIT, Cat (Ch 46 46) (Cat dec_octet (Cat (Ch 46 46) (Cat dec_octet (Cat (Ch
        46 46) dec_octet)))), flow_port], [Cat (Ch 48 52) DIGIT, Cat (Ch 46 46) (Cat dec_octet
        (Cat (Ch 46 46) (Cat dec_octet (Cat (Ch 46 46) dec_octet)))), flow_port], [Cat (Ch 53 53)
        (Ch 48 53), Cat (Ch 46 46) (Cat dec_octet (Cat (Ch 46 46) (Cat dec_octet (Cat (Ch 46 46)
        dec_octet)))), flow_port], [Rep 0 3 HEXDIG, flow_port]], []]])
      else
      if s = 127 then ([-128, 46, 47, 48, 54, 58, 59, 65, 71, 95, 96, 97, 103], [[[], [[Rep 0 2
        HEXDIG, Ch 58 58, h16_colon, ls32, Ch 95 95], [Rep 0 2 HEXDIG, Ch 58 58, ls32, Ch 95 95],
        [Rep 0 2 HEXDIG, Cat (Ch 58 58) h16, Ch 95 95], [Cat (Ch 46 46) (Cat dec_octet (Cat (Ch 46
        46) (Cat dec_octet (Cat (Ch 46 46) dec_octet)))), Ch 95 95], [Ch 48 53, Cat (Ch 46 46)
        (Cat dec_octet (Cat (Ch 46 46) (Cat dec_octet (Cat (Ch 46 46) dec_octet)))), Ch 95 95],
        [Rep 0 2 HEXDIG, Ch 95 95]], [[Rep 0 2 HEXDIG, Ch 58 58, h16_colon, ls32, flow_port], [Rep
        0 2 HEXDIG, Ch 58 58, ls32, flow_port], [Rep 0 2 HEXDIG, Cat (Ch 58 58) h16, flow_port],
        [Cat (Ch 46 46) (Cat dec_octet (Cat (Ch 46 46) (Cat dec_octet (Cat (Ch 46 46)
        dec_octet)))), flow_port], [Ch 48 53, Cat (Ch 46 46) (Cat dec_octet (Cat (Ch 46 46) (Cat
        dec_octet (Cat (Ch 46 46) dec_octet)))), flow_port], [Rep 0 2 HEXDIG, flow_port]], []]])
      else
      if s = 128 then ([-128, 46, 47, 48, 58, 59, 65, 71, 95, 96, 97, 103], [[[], [[Rep 0 2
        HEXDIG, Ch 58 58, h16_colon, ls32, Ch 95 95], [Rep 0 2 HEXDIG, Ch 58 58, ls32, Ch 95 95],
        [Rep 0 2 HEXDIG, Cat (Ch 58 58) h16, Ch 95 95], [Cat (Ch 46 46) (Cat dec_octet (Cat (Ch 46
        46) (Cat dec_octet (Cat (Ch 46 46) dec_octet)))), Ch 95 95], [Rep 0 2 HEXDIG, Ch 95 95]],
        [[Rep 0 2 HEXDIG, Ch 58 58, h16_colon, ls32, flow_port], [Rep 0 2 HEXDIG, Ch 58 58, ls32,
        flow_port], [Rep 0 2 HEXDIG, Cat (Ch 58 58) h16, flow_port], [Cat (Ch 46 46) (Cat
        dec_octet (Cat (Ch 46 46) (Cat dec_octet (Cat (Ch 46 46) dec_octet)))), flow_port], [Rep 0
        2 HEXDIG, flow_port]], []]])
      else
      if s = 129 then ([-128, 46, 47, 48, 58, 59, 65, 71, 95, 96, 97, 103], [[[], [[Rep 0 3
        HEXDIG, Ch 58 58, h16_colon, ls32, Ch 95 95], [Rep 0 3 HEXDIG, Ch 58 58, ls32, Ch 95 95],
        [Rep 0 3 HEXDIG, Cat (Ch 58 58) h16, Ch 95 95], [Cat (Ch 46 46) (Cat dec_octet (Cat (Ch 46
        46) (Cat dec_octet (Cat (Ch 46 46) dec_octet)))), Ch 95 95], [DIGIT, Cat (Ch 46 46) (Cat
        dec_octet (Cat (Ch 46 46) (Cat dec_octet (Cat (Ch 46 46) dec_octet)))), Ch 95 95], [Rep 0
        3 HEXDIG, Ch 95 95]], [[Rep 0 3 HEXDIG, Ch 58 58, h16_colon, ls32, flow_port], [Rep 0 3
        HEXDIG, Ch 58 58, ls32, flow_port], [Rep 0 3 HEXDIG, Cat (Ch 58 58) h16, flow_port], [Cat
        (Ch 46 46) (Cat dec_octet (Cat (Ch 46 46) (Cat dec_octet (Cat (Ch 46 46) dec_octet)))),
        flow_port], [DIGIT, Cat (Ch 46 46) (Cat dec_octet (Cat (Ch 46 46) (Cat dec_octet (Cat (Ch
        46 46) dec_octet)))), flow_port], [Rep 0 3 HEXDIG, flow_port]], []]])
      else
      if s = 130 then ([-128, 48, 58, 59, 65, 71, 95, 96, 97, 103], [[[], [[Rep 0 3 HEXDIG, Ch 58
        58, h16_colon, ls32, Ch 95 95], [Rep 0 3 HEXDIG, Ch 58 58, ls32, Ch 95 95], [Rep 0 3
        HEXDIG, Cat (Ch 58 58) h16, Ch 95 95], [Rep 0 3 HEXDIG, Ch 95 95]], [[Rep 0 3 HEXDIG, Ch
        58 58, h16_colon, ls32, flow_port], [Rep 0 3 HEXDIG, Ch 58 58, ls32, flow_port], [Rep 0 3
        HEXDIG, Cat (Ch 58 58) h16, flow_port], [Rep 0 3 HEXDIG, flow_port]], []]])
      else
      if s = 131 then ([-128, 48, 49, 50, 51, 58, 65, 71, 95, 96, 97, 103], [[[], [[Cat (Rep 3 3
        h16_colon) ls32, Ch 95 95], [Cat (Rep 2 2 h16_colon) ls32, Ch 95 95], [Cat h16_colon ls32,
        Ch 95 95], [ls32, Ch 95 95], [h16, Ch 95 95], [Ch 95 95]], [[Cat (Rep 3 3 h16_colon) ls32,
        flow_port], [Cat (Rep 2 2 h16_colon) ls32, flow_port], [Cat h16_colon ls32, flow_port],
        [ls32, flow_port], [h16, flow_port], [flow_port]], []]])
      else
      ([-128, 46, 47, 48, 58, 59, 65, 71, 95, 96, 97, 103], [[[], [[Rep 0 3 HEXDIG, Ch 58 58, Rep
        2 2 h16_colon, ls32, Ch 95 95], [Rep 0 3 HEXDIG, Ch 58 58, h16_colon, ls32, Ch 95 95],
        [Rep 0 3 HEXDIG, Ch 58 58, ls32, Ch 95 95], [Rep 0 3 HEXDIG, Cat (Ch 58 58) h16, Ch 95
        95], [Cat (Ch 46 46) (Cat dec_octet (Cat (Ch 46 46) (Cat dec_octet (Cat (Ch 46 46)
        dec_octet)))), Ch 95 95], [Rep 0 3 HEXDIG, Ch 95 95]], [[Rep 0 3 HEXDIG, Ch 58 58, Rep 2 2
        h16_colon, ls32, flow_port], [Rep 0 3 HEXDIG, Ch 58 58, h16_colon, ls32, flow_port], [Rep
        0 3 HEXDIG, Ch 58 58, ls32, flow_port], [Rep 0 3 HEXDIG, Cat (Ch 58 58) h16, flow_port],
        [Cat (Ch 46 46) (Cat dec_octet (Cat (Ch 46 46) (Cat dec_octet (Cat (Ch 46 46)
        dec_octet)))), flow_port], [Rep 0 3 HEXDIG, flow_port]], []]]))"

definition flow_expects_12 :: certificate where
  "flow_expects_12 s =
     (if s = 133 then ([-128, 48, 58, 59, 65, 71, 95, 96, 97, 103], [[[], [[Rep 0 2 HEXDIG, Ch 58
        58, Rep 2 2 h16_colon, ls32, Ch 95 95], [Rep 0 2 HEXDIG, Ch 58 58, h16_colon, ls32, Ch 95
        95], [Rep 0 2 HEXDIG, Ch 58 58, ls32, Ch 95 95], [Rep 0 2 HEXDIG, Cat (Ch 58 58) h16, Ch
        95 95], [Rep 0 2 HEXDIG, Ch 95 95]], [[Rep 0 2 HEXDIG, Ch 58 58, Rep 2 2 h16_colon, ls32,
        flow_port], [Rep 0 2 HEXDIG, Ch 58 58, h16_colon, ls32, flow_port], [Rep 0 2 HEXDIG, Ch 58
        58, ls32, flow_port], [Rep 0 2 HEXDIG, Cat (Ch 58 58) h16, flow_port], [Rep 0 2 HEXDIG,
        flow_port]], []]])
      else
      if s = 134 then ([-128, 48, 58, 59, 65, 71, 95, 96, 97, 103], [[[], [[Rep 0 1 HEXDIG, Ch 58
        58, Rep 2 2 h16_colon, ls32, Ch 95 95], [Rep 0 1 HEXDIG, Ch 58 58, h16_colon, ls32, Ch 95
        95], [Rep 0 1 HEXDIG, Ch 58 58, ls32, Ch 95 95], [Rep 0 1 HEXDIG, Cat (Ch 58 58) h16, Ch
        95 95], [Rep 0 1 HEXDIG, Ch 95 95]], [[Rep 0 1 HEXDIG, Ch 58 58, Rep 2 2 h16_colon, ls32,
        flow_port], [Rep 0 1 HEXDIG, Ch 58 58, h16_colon, ls32, flow_port], [Rep 0 1 HEXDIG, Ch 58
        58, ls32, flow_port], [Rep 0 1 HEXDIG, Cat (Ch 58 58) h16, flow_port], [Rep 0 1 HEXDIG,
        flow_port]], []]])
      else
      if s = 135 then ([-128, 58, 59, 95, 96], [[[], [[Ch 58 58, Rep 2 2 h16_colon, ls32, Ch 95
        95], [Ch 58 58, h16_colon, ls32, Ch 95 95], [Ch 58 58, ls32, Ch 95 95], [Cat (Ch 58 58)
        h16, Ch 95 95], [Ch 95 95]], [[Ch 58 58, Rep 2 2 h16_colon, ls32, flow_port], [Ch 58 58,
        h16_colon, ls32, flow_port], [Ch 58 58, ls32, flow_port], [Cat (Ch 58 58) h16, flow_port],
        [flow_port]], []]])
      else
      if s = 136 then ([-128, 48, 49, 50, 51, 58, 65, 71, 97, 103], [[[], [[Rep 2 2 h16_colon,
        ls32, Ch 95 95], [h16_colon, ls32, Ch 95 95], [ls32, Ch 95 95], [h16, Ch 95 95]], [[Rep 2
        2 h16_colon, ls32, flow_port], [h16_colon, ls32, flow_port], [ls32, flow_port], [h16,
        flow_port]], []]])
      else
      if s = 137 then ([-128, 46, 47, 48, 58, 59, 65, 71, 95, 96, 97, 103], [[[], [[Rep 0 3
        HEXDIG, Ch 58 58, Rep 2 2 h16_colon, ls32, Ch 95 95], [Rep 0 3 HEXDIG, Ch 58 58,
        h16_colon, ls32, Ch 95 95], [Rep 0 3 HEXDIG, Ch 58 58, ls32, Ch 95 95], [Rep 0 3 HEXDIG,
        Cat (Ch 58 58) h16, Ch 95 95], [Cat (Ch 46 46) (Cat dec_octet (Cat (Ch 46 46) (Cat
        dec_octet (Cat (Ch 46 46) dec_octet)))), Ch 95 95], [DIGIT, Cat (Ch 46 46) (Cat dec_octet
        (Cat (Ch 46 46) (Cat dec_octet (Cat (Ch 46 46) dec_octet)))), Ch 95 95], [Rep 2 2 DIGIT,
        Cat (Ch 46 46) (Cat dec_octet (Cat (Ch 46 46) (Cat dec_octet (Cat (Ch 46 46)
        dec_octet)))), Ch 95 95], [Rep 0 3 HEXDIG, Ch 95 95]], [[Rep 0 3 HEXDIG, Ch 58 58, Rep 2 2
        h16_colon, ls32, flow_port], [Rep 0 3 HEXDIG, Ch 58 58, h16_colon, ls32, flow_port], [Rep
        0 3 HEXDIG, Ch 58 58, ls32, flow_port], [Rep 0 3 HEXDIG, Cat (Ch 58 58) h16, flow_port],
        [Cat (Ch 46 46) (Cat dec_octet (Cat (Ch 46 46) (Cat dec_octet (Cat (Ch 46 46)
        dec_octet)))), flow_port], [DIGIT, Cat (Ch 46 46) (Cat dec_octet (Cat (Ch 46 46) (Cat
        dec_octet (Cat (Ch 46 46) dec_octet)))), flow_port], [Rep 2 2 DIGIT, Cat (Ch 46 46) (Cat
        dec_octet (Cat (Ch 46 46) (Cat dec_octet (Cat (Ch 46 46) dec_octet)))), flow_port], [Rep 0
        3 HEXDIG, flow_port]], []]])
      else
      if s = 138 then ([-128, 46, 47, 48, 58, 59, 65, 71, 95, 96, 97, 103], [[[], [[Rep 0 2
        HEXDIG, Ch 58 58, Rep 2 2 h16_colon, ls32, Ch 95 95], [Rep 0 2 HEXDIG, Ch 58 58,
        h16_colon, ls32, Ch 95 95], [Rep 0 2 HEXDIG, Ch 58 58, ls32, Ch 95 95], [Rep 0 2 HEXDIG,
        Cat (Ch 58 58) h16, Ch 95 95], [Cat (Ch 46 46) (Cat dec_octet (Cat (Ch 46 46) (Cat
        dec_octet (Cat (Ch 46 46) dec_octet)))), Ch 95 95], [DIGIT, Cat (Ch 46 46) (Cat dec_octet
        (Cat (Ch 46 46) (Cat dec_octet (Cat (Ch 46 46) dec_octet)))), Ch 95 95], [Rep 0 2 HEXDIG,
        Ch 95 95]], [[Rep 0 2 HEXDIG, Ch 58 58, Rep 2 2 h16_colon, ls32, flow_port], [Rep 0 2
        HEXDIG, Ch 58 58, h16_colon, ls32, flow_port], [Rep 0 2 HEXDIG, Ch 58 58, ls32,
        flow_port], [Rep 0 2 HEXDIG, Cat (Ch 58 58) h16, flow_port], [Cat (Ch 46 46) (Cat
        dec_octet (Cat (Ch 46 46) (Cat dec_octet (Cat (Ch 46 46) dec_octet)))), flow_port],
        [DIGIT, Cat (Ch 46 46) (Cat dec_octet (Cat (Ch 46 46) (Cat dec_octet (Cat (Ch 46 46)
        dec_octet)))), flow_port], [Rep 0 2 HEXDIG, flow_port]], []]])
      else
      if s = 139 then ([-128, 46, 47, 48, 58, 59, 65, 71, 95, 96, 97, 103], [[[], [[Rep 0 1
        HEXDIG, Ch 58 58, Rep 2 2 h16_colon, ls32, Ch 95 95], [Rep 0 1 HEXDIG, Ch 58 58,
        h16_colon, ls32, Ch 95 95], [Rep 0 1 HEXDIG, Ch 58 58, ls32, Ch 95 95], [Rep 0 1 HEXDIG,
        Cat (Ch 58 58) h16, Ch 95 95], [Cat (Ch 46 46) (Cat dec_octet (Cat (Ch 46 46) (Cat
        dec_octet (Cat (Ch 46 46) dec_octet)))), Ch 95 95], [Rep 0 1 HEXDIG, Ch 95 95]], [[Rep 0 1
        HEXDIG, Ch 58 58, Rep 2 2 h16_colon, ls32, flow_port], [Rep 0 1 HEXDIG, Ch 58 58,
        h16_colon, ls32, flow_port], [Rep 0 1 HEXDIG, Ch 58 58, ls32, flow_port], [Rep 0 1 HEXDIG,
        Cat (Ch 58 58) h16, flow_port], [Cat (Ch 46 46) (Cat dec_octet (Cat (Ch 46 46) (Cat
        dec_octet (Cat (Ch 46 46) dec_octet)))), flow_port], [Rep 0 1 HEXDIG, flow_port]], []]])
      else
      if s = 140 then ([-128, 46, 47, 48, 53, 54, 58, 59, 65, 71, 95, 96, 97, 103], [[[], [[Rep 0
        3 HEXDIG, Ch 58 58, Rep 2 2 h16_colon, ls32, Ch 95 95], [Rep 0 3 HEXDIG, Ch 58 58,
        h16_colon, ls32, Ch 95 95], [Rep 0 3 HEXDIG, Ch 58 58, ls32, Ch 95 95], [Rep 0 3 HEXDIG,
        Cat (Ch 58 58) h16, Ch 95 95], [Cat (Ch 46 46) (Cat dec_octet (Cat (Ch 46 46) (Cat
        dec_octet (Cat (Ch 46 46) dec_octet)))), Ch 95 95], [DIGIT, Cat (Ch 46 46) (Cat dec_octet
        (Cat (Ch 46 46) (Cat dec_octet (Cat (Ch 46 46) dec_octet)))), Ch 95 95], [Cat (Ch 48 52)
        DIGIT, Cat (Ch 46 46) (Cat dec_octet (Cat (Ch 46 46) (Cat dec_octet (Cat (Ch 46 46)
        dec_octet)))), Ch 95 95], [Cat (Ch 53 53) (Ch 48 53), Cat (Ch 46 46) (Cat dec_octet (Cat
        (Ch 46 46) (Cat dec_octet (Cat (Ch 46 46) dec_octet)))), Ch 95 95], [Rep 0 3 HEXDIG, Ch 95
        95]], [[Rep 0 3 HEXDIG, Ch 58 58, Rep 2 2 h16_colon, ls32, flow_port], [Rep 0 3 HEXDIG, Ch
        58 58, h16_colon, ls32, flow_port], [Rep 0 3 HEXDIG, Ch 58 58, ls32, flow_port], [Rep 0 3
        HEXDIG, Cat (Ch 58 58) h16, flow_port], [Cat (Ch 46 46) (Cat dec_octet (Cat (Ch 46 46)
        (Cat dec_octet (Cat (Ch 46 46) dec_octet)))), flow_port], [DIGIT, Cat (Ch 46 46) (Cat
        dec_octet (Cat (Ch 46 46) (Cat dec_octet (Cat (Ch 46 46) dec_octet)))), flow_port], [Cat
        (Ch 48 52) DIGIT, Cat (Ch 46 46) (Cat dec_octet (Cat (Ch 46 46) (Cat dec_octet (Cat (Ch 46
        46) dec_octet)))), flow_port], [Cat (Ch 53 53) (Ch 48 53), Cat (Ch 46 46) (Cat dec_octet
        (Cat (Ch 46 46) (Cat dec_octet (Cat (Ch 46 46) dec_octet)))), flow_port], [Rep 0 3 HEXDIG,
        flow_port]], []]])
      else
      if s = 141 then ([-128, 46, 47, 48, 54, 58, 59, 65, 71, 95, 96, 97, 103], [[[], [[Rep 0 2
        HEXDIG, Ch 58 58, Rep 2 2 h16_colon, ls32, Ch 95 95], [Rep 0 2 HEXDIG, Ch 58 58,
        h16_colon, ls32, Ch 95 95], [Rep 0 2 HEXDIG, Ch 58 58, ls32, Ch 95 95], [Rep 0 2 HEXDIG,
        Cat (Ch 58 58) h16, Ch 95 95], [Cat (Ch 46 46) (Cat dec_octet (Cat (Ch 46 46) (Cat
        dec_octet (Cat (Ch 46 46) dec_octet)))), Ch 95 95], [Ch 48 53, Cat (Ch 46 46) (Cat
        dec_octet (Cat (Ch 46 46) (Cat dec_octet (Cat (Ch 46 46) dec_octet)))), Ch 95 95], [Rep 0
        2 HEXDIG, Ch 95 95]], [[Rep 0 2 HEXDIG, Ch 58 58, Rep 2 2 h16_colon, ls32, flow_port],
        [Rep 0 2 HEXDIG, Ch 58 58, h16_colon, ls32, flow_port], [Rep 0 2 HEXDIG, Ch 58 58, ls32,
        flow_port], [Rep 0 2 HEXDIG, Cat (Ch 58 58) h16, flow_port], [Cat (Ch 46 46) (Cat
        dec_octet (Cat (Ch 46 46) (Cat dec_octet (Cat (Ch 46 46) dec_octet)))), flow_port], [Ch 48
        53, Cat (Ch 46 46) (Cat dec_octet (Cat (Ch 46 46) (Cat dec_octet (Cat (Ch 46 46)
        dec_octet)))), flow_port], [Rep 0 2 HEXDIG, flow_port]], []]])
      else
      if s = 142 then ([-128, 46, 47, 48, 58, 59, 65, 71, 95, 96, 97, 103], [[[], [[Rep 0 2
        HEXDIG, Ch 58 58, Rep 2 2 h16_colon, ls32, Ch 95 95], [Rep 0 2 HEXDIG, Ch 58 58,
        h16_colon, ls32, Ch 95 95], [Rep 0 2 HEXDIG, Ch 58 58, ls32, Ch 95 95], [Rep 0 2 HEXDIG,
        Cat (Ch 58 58) h16, Ch 95 95], [Cat (Ch 46 46) (Cat dec_octet (Cat (Ch 46 46) (Cat
        dec_octet (Cat (Ch 46 46) dec_octet)))), Ch 95 95], [Rep 0 2 HEXDIG, Ch 95 95]], [[Rep 0 2
        HEXDIG, Ch 58 58, Rep 2 2 h16_colon, ls32, flow_port], [Rep 0 2 HEXDIG, Ch 58 58,
        h16_colon, ls32, flow_port], [Rep 0 2 HEXDIG, Ch 58 58, ls32, flow_port], [Rep 0 2 HEXDIG,
        Cat (Ch 58 58) h16, flow_port], [Cat (Ch 46 46) (Cat dec_octet (Cat (Ch 46 46) (Cat
        dec_octet (Cat (Ch 46 46) dec_octet)))), flow_port], [Rep 0 2 HEXDIG, flow_port]], []]])
      else
      if s = 143 then ([-128, 46, 47, 48, 58, 59, 65, 71, 95, 96, 97, 103], [[[], [[Rep 0 3
        HEXDIG, Ch 58 58, Rep 2 2 h16_colon, ls32, Ch 95 95], [Rep 0 3 HEXDIG, Ch 58 58,
        h16_colon, ls32, Ch 95 95], [Rep 0 3 HEXDIG, Ch 58 58, ls32, Ch 95 95], [Rep 0 3 HEXDIG,
        Cat (Ch 58 58) h16, Ch 95 95], [Cat (Ch 46 46) (Cat dec_octet (Cat (Ch 46 46) (Cat
        dec_octet (Cat (Ch 46 46) dec_octet)))), Ch 95 95], [DIGIT, Cat (Ch 46 46) (Cat dec_octet
        (Cat (Ch 46 46) (Cat dec_octet (Cat (Ch 46 46) dec_octet)))), Ch 95 95], [Rep 0 3 HEXDIG,
        Ch 95 95]], [[Rep 0 3 HEXDIG, Ch 58 58, Rep 2 2 h16_colon, ls32, flow_port], [Rep 0 3
        HEXDIG, Ch 58 58, h16_colon, ls32, flow_port], [Rep 0 3 HEXDIG, Ch 58 58, ls32,
        flow_port], [Rep 0 3 HEXDIG, Cat (Ch 58 58) h16, flow_port], [Cat (Ch 46 46) (Cat
        dec_octet (Cat (Ch 46 46) (Cat dec_octet (Cat (Ch 46 46) dec_octet)))), flow_port],
        [DIGIT, Cat (Ch 46 46) (Cat dec_octet (Cat (Ch 46 46) (Cat dec_octet (Cat (Ch 46 46)
        dec_octet)))), flow_port], [Rep 0 3 HEXDIG, flow_port]], []]])
      else
      ([-128, 48, 58, 59, 65, 71, 95, 96, 97, 103], [[[], [[Rep 0 3 HEXDIG, Ch 58 58, Rep 2 2
        h16_colon, ls32, Ch 95 95], [Rep 0 3 HEXDIG, Ch 58 58, h16_colon, ls32, Ch 95 95], [Rep 0
        3 HEXDIG, Ch 58 58, ls32, Ch 95 95], [Rep 0 3 HEXDIG, Cat (Ch 58 58) h16, Ch 95 95], [Rep
        0 3 HEXDIG, Ch 95 95]], [[Rep 0 3 HEXDIG, Ch 58 58, Rep 2 2 h16_colon, ls32, flow_port],
        [Rep 0 3 HEXDIG, Ch 58 58, h16_colon, ls32, flow_port], [Rep 0 3 HEXDIG, Ch 58 58, ls32,
        flow_port], [Rep 0 3 HEXDIG, Cat (Ch 58 58) h16, flow_port], [Rep 0 3 HEXDIG, flow_port]],
        []]]))"

definition flow_expects_13 :: certificate where
  "flow_expects_13 s =
     (if s = 145 then ([-128, 48, 49, 50, 51, 58, 65, 71, 95, 96, 97, 103], [[[], [[Cat (Rep 4 4
        h16_colon) ls32, Ch 95 95], [Cat (Rep 3 3 h16_colon) ls32, Ch 95 95], [Cat (Rep 2 2
        h16_colon) ls32, Ch 95 95], [Cat h16_colon ls32, Ch 95 95], [ls32, Ch 95 95], [h16, Ch 95
        95], [Ch 95 95]], [[Cat (Rep 4 4 h16_colon) ls32, flow_port], [Cat (Rep 3 3 h16_colon)
        ls32, flow_port], [Cat (Rep 2 2 h16_colon) ls32, flow_port], [Cat h16_colon ls32,
        flow_port], [ls32, flow_port], [h16, flow_port], [flow_port]], []]])
      else
      if s = 146 then ([-128, 46, 47, 48, 58, 59, 65, 71, 95, 96, 97, 103], [[[], [[Rep 0 3
        HEXDIG, Ch 58 58, Rep 3 3 h16_colon, ls32, Ch 95 95], [Rep 0 3 HEXDIG, Ch 58 58, Rep 2 2
        h16_colon, ls32, Ch 95 95], [Rep 0 3 HEXDIG, Ch 58 58, h16_colon, ls32, Ch 95 95], [Rep 0
        3 HEXDIG, Ch 58 58, ls32, Ch 95 95], [Rep 0 3 HEXDIG, Cat (Ch 58 58) h16, Ch 95 95], [Cat
        (Ch 46 46) (Cat dec_octet (Cat (Ch 46 46) (Cat dec_octet (Cat (Ch 46 46) dec_octet)))), Ch
        95 95], [Rep 0 3 HEXDIG, Ch 95 95]], [[Rep 0 3 HEXDIG, Ch 58 58, Rep 3 3 h16_colon, ls32,
        flow_port], [Rep 0 3 HEXDIG, Ch 58 58, Rep 2 2 h16_colon, ls32, flow_port], [Rep 0 3
        HEXDIG, Ch 58 58, h16_colon, ls32, flow_port], [Rep 0 3 HEXDIG, Ch 58 58, ls32,
        flow_port], [Rep 0 3 HEXDIG, Cat (Ch 58 58) h16, flow_port], [Cat (Ch 46 46) (Cat
        dec_octet (Cat (Ch 46 46) (Cat dec_octet (Cat (Ch 46 46) dec_octet)))), flow_port], [Rep 0
        3 HEXDIG, flow_port]], []]])
      else
      if s = 147 then ([-128, 48, 58, 59, 65, 71, 95, 96, 97, 103], [[[], [[Rep 0 2 HEXDIG, Ch 58
        58, Rep 3 3 h16_colon, ls32, Ch 95 95], [Rep 0 2 HEXDIG, Ch 58 58, Rep 2 2 h16_colon,
        ls32, Ch 95 95], [Rep 0 2 HEXDIG, Ch 58 58, h16_colon, ls32, Ch 95 95], [Rep 0 2 HEXDIG,
        Ch 58 58, ls32, Ch 95 95], [Rep 0 2 HEXDIG, Cat (Ch 58 58) h16, Ch 95 95], [Rep 0 2
        HEXDIG, Ch 95 95]], [[Rep 0 2 HEXDIG, Ch 58 58, Rep 3 3 h16_colon, ls32, flow_port], [Rep
        0 2 HEXDIG, Ch 58 58, Rep 2 2 h16_colon, ls32, flow_port], [Rep 0 2 HEXDIG, Ch 58 58,
        h16_colon, ls32, flow_port], [Rep 0 2 HEXDIG, Ch 58 58, ls32, flow_port], [Rep 0 2 HEXDIG,
        Cat (Ch 58 58) h16, flow_port], [Rep 0 2 HEXDIG, flow_port]], []]])
      else
      if s = 148 then ([-128, 48, 58, 59, 65, 71, 95, 96, 97, 103], [[[], [[Rep 0 1 HEXDIG, Ch 58
        58, Rep 3 3 h16_colon, ls32, Ch 95 95], [Rep 0 1 HEXDIG, Ch 58 58, Rep 2 2 h16_colon,
        ls32, Ch 95 95], [Rep 0 1 HEXDIG, Ch 58 58, h16_colon, ls32, Ch 95 95], [Rep 0 1 HEXDIG,
        Ch 58 58, ls32, Ch 95 95], [Rep 0 1 HEXDIG, Cat (Ch 58 58) h16, Ch 95 95], [Rep 0 1
        HEXDIG, Ch 95 95]], [[Rep 0 1 HEXDIG, Ch 58 58, Rep 3 3 h16_colon, ls32, flow_port], [Rep
        0 1 HEXDIG, Ch 58 58, Rep 2 2 h16_colon, ls32, flow_port], [Rep 0 1 HEXDIG, Ch 58 58,
        h16_colon, ls32, flow_port], [Rep 0 1 HEXDIG, Ch 58 58, ls32, flow_port], [Rep 0 1 HEXDIG,
        Cat (Ch 58 58) h16, flow_port], [Rep 0 1 HEXDIG, flow_port]], []]])
      else
      if s = 149 then ([-128, 58, 59, 95, 96], [[[], [[Ch 58 58, Rep 3 3 h16_colon, ls32, Ch 95
        95], [Ch 58 58, Rep 2 2 h16_colon, ls32, Ch 95 95], [Ch 58 58, h16_colon, ls32, Ch 95 95],
        [Ch 58 58, ls32, Ch 95 95], [Cat (Ch 58 58) h16, Ch 95 95], [Ch 95 95]], [[Ch 58 58, Rep 3
        3 h16_colon, ls32, flow_port], [Ch 58 58, Rep 2 2 h16_colon, ls32, flow_port], [Ch 58 58,
        h16_colon, ls32, flow_port], [Ch 58 58, ls32, flow_port], [Cat (Ch 58 58) h16, flow_port],
        [flow_port]], []]])
      else
      if s = 150 then ([-128, 48, 49, 50, 51, 58, 65, 71, 97, 103], [[[], [[Rep 3 3 h16_colon,
        ls32, Ch 95 95], [Rep 2 2 h16_colon, ls32, Ch 95 95], [h16_colon, ls32, Ch 95 95], [ls32,
        Ch 95 95], [h16, Ch 95 95]], [[Rep 3 3 h16_colon, ls32, flow_port], [Rep 2 2 h16_colon,
        ls32, flow_port], [h16_colon, ls32, flow_port], [ls32, flow_port], [h16, flow_port]],
        []]])
      else
      if s = 151 then ([-128, 46, 47, 48, 58, 59, 65, 71, 95, 96, 97, 103], [[[], [[Rep 0 3
        HEXDIG, Ch 58 58, Rep 3 3 h16_colon, ls32, Ch 95 95], [Rep 0 3 HEXDIG, Ch 58 58, Rep 2 2
        h16_colon, ls32, Ch 95 95], [Rep 0 3 HEXDIG, Ch 58 58, h16_colon, ls32, Ch 95 95], [Rep 0
        3 HEXDIG, Ch 58 58, ls32, Ch 95 95], [Rep 0 3 HEXDIG, Cat (Ch 58 58) h16, Ch 95 95], [Cat
        (Ch 46 46) (Cat dec_octet (Cat (Ch 46 46) (Cat dec_octet (Cat (Ch 46 46) dec_octet)))), Ch
        95 95], [DIGIT, Cat (Ch 46 46) (Cat dec_octet (Cat (Ch 46 46) (Cat dec_octet (Cat (Ch 46
        46) dec_octet)))), Ch 95 95], [Rep 2 2 DIGIT, Cat (Ch 46 46) (Cat dec_octet (Cat (Ch 46
        46) (Cat dec_octet (Cat (Ch 46 46) dec_octet)))), Ch 95 95], [Rep 0 3 HEXDIG, Ch 95 95]],
        [[Rep 0 3 HEXDIG, Ch 58 58, Rep 3 3 h16_colon, ls32, flow_port], [Rep 0 3 HEXDIG, Ch 58
        58, Rep 2 2 h16_colon, ls32, flow_port], [Rep 0 3 HEXDIG, Ch 58 58, h16_colon, ls32,
        flow_port], [Rep 0 3 HEXDIG, Ch 58 58, ls32, flow_port], [Rep 0 3 HEXDIG, Cat (Ch 58 58)
        h16, flow_port], [Cat (Ch 46 46) (Cat dec_octet (Cat (Ch 46 46) (Cat dec_octet (Cat (Ch 46
        46) dec_octet)))), flow_port], [DIGIT, Cat (Ch 46 46) (Cat dec_octet (Cat (Ch 46 46) (Cat
        dec_octet (Cat (Ch 46 46) dec_octet)))), flow_port], [Rep 2 2 DIGIT, Cat (Ch 46 46) (Cat
        dec_octet (Cat (Ch 46 46) (Cat dec_octet (Cat (Ch 46 46) dec_octet)))), flow_port], [Rep 0
        3 HEXDIG, flow_port]], []]])
      else
      if s = 152 then ([-128, 46, 47, 48, 58, 59, 65, 71, 95, 96, 97, 103], [[[], [[Rep 0 2
        HEXDIG, Ch 58 58, Rep 3 3 h16_colon, ls32, Ch 95 95], [Rep 0 2 HEXDIG, Ch 58 58, Rep 2 2
        h16_colon, ls32, Ch 95 95], [Rep 0 2 HEXDIG, Ch 58 58, h16_colon, ls32, Ch 95 95], [Rep 0
        2 HEXDIG, Ch 58 58, ls32, Ch 95 95], [Rep 0 2 HEXDIG, Cat (Ch 58 58) h16, Ch 95 95], [Cat
        (Ch 46 46) (Cat dec_octet (Cat (Ch 46 46) (Cat dec_octet (Cat (Ch 46 46) dec_octet)))), Ch
        95 95], [DIGIT, Cat (Ch 46 46) (Cat dec_octet (Cat (Ch 46 46) (Cat dec_octet (Cat (Ch 46
        46) dec_octet)))), Ch 95 95], [Rep 0 2 HEXDIG, Ch 95 95]], [[Rep 0 2 HEXDIG, Ch 58 58, Rep
        3 3 h16_colon, ls32, flow_port], [Rep 0 2 HEXDIG, Ch 58 58, Rep 2 2 h16_colon, ls32,
        flow_port], [Rep 0 2 HEXDIG, Ch 58 58, h16_colon, ls32, flow_port], [Rep 0 2 HEXDIG, Ch 58
        58, ls32, flow_port], [Rep 0 2 HEXDIG, Cat (Ch 58 58) h16, flow_port], [Cat (Ch 46 46)
        (Cat dec_octet (Cat (Ch 46 46) (Cat dec_octet (Cat (Ch 46 46) dec_octet)))), flow_port],
        [DIGIT, Cat (Ch 46 46) (Cat dec_octet (Cat (Ch 46 46) (Cat dec_octet (Cat (Ch 46 46)
        dec_octet)))), flow_port], [Rep 0 2 HEXDIG, flow_port]], []]])
      else
      if s = 153 then ([-128, 46, 47, 48, 58, 59, 65, 71, 95, 96, 97, 103], [[[], [[Rep 0 1
        HEXDIG, Ch 58 58, Rep 3 3 h16_colon, ls32, Ch 95 95], [Rep 0 1 HEXDIG, Ch 58 58, Rep 2 2
        h16_colon, ls32, Ch 95 95], [Rep 0 1 HEXDIG, Ch 58 58, h16_colon, ls32, Ch 95 95], [Rep 0
        1 HEXDIG, Ch 58 58, ls32, Ch 95 95], [Rep 0 1 HEXDIG, Cat (Ch 58 58) h16, Ch 95 95], [Cat
        (Ch 46 46) (Cat dec_octet (Cat (Ch 46 46) (Cat dec_octet (Cat (Ch 46 46) dec_octet)))), Ch
        95 95], [Rep 0 1 HEXDIG, Ch 95 95]], [[Rep 0 1 HEXDIG, Ch 58 58, Rep 3 3 h16_colon, ls32,
        flow_port], [Rep 0 1 HEXDIG, Ch 58 58, Rep 2 2 h16_colon, ls32, flow_port], [Rep 0 1
        HEXDIG, Ch 58 58, h16_colon, ls32, flow_port], [Rep 0 1 HEXDIG, Ch 58 58, ls32,
        flow_port], [Rep 0 1 HEXDIG, Cat (Ch 58 58) h16, flow_port], [Cat (Ch 46 46) (Cat
        dec_octet (Cat (Ch 46 46) (Cat dec_octet (Cat (Ch 46 46) dec_octet)))), flow_port], [Rep 0
        1 HEXDIG, flow_port]], []]])
      else
      if s = 154 then ([-128, 46, 47, 48, 53, 54, 58, 59, 65, 71, 95, 96, 97, 103], [[[], [[Rep 0
        3 HEXDIG, Ch 58 58, Rep 3 3 h16_colon, ls32, Ch 95 95], [Rep 0 3 HEXDIG, Ch 58 58, Rep 2 2
        h16_colon, ls32, Ch 95 95], [Rep 0 3 HEXDIG, Ch 58 58, h16_colon, ls32, Ch 95 95], [Rep 0
        3 HEXDIG, Ch 58 58, ls32, Ch 95 95], [Rep 0 3 HEXDIG, Cat (Ch 58 58) h16, Ch 95 95], [Cat
        (Ch 46 46) (Cat dec_octet (Cat (Ch 46 46) (Cat dec_octet (Cat (Ch 46 46) dec_octet)))), Ch
        95 95], [DIGIT, Cat (Ch 46 46) (Cat dec_octet (Cat (Ch 46 46) (Cat dec_octet (Cat (Ch 46
        46) dec_octet)))), Ch 95 95], [Cat (Ch 48 52) DIGIT, Cat (Ch 46 46) (Cat dec_octet (Cat
        (Ch 46 46) (Cat dec_octet (Cat (Ch 46 46) dec_octet)))), Ch 95 95], [Cat (Ch 53 53) (Ch 48
        53), Cat (Ch 46 46) (Cat dec_octet (Cat (Ch 46 46) (Cat dec_octet (Cat (Ch 46 46)
        dec_octet)))), Ch 95 95], [Rep 0 3 HEXDIG, Ch 95 95]], [[Rep 0 3 HEXDIG, Ch 58 58, Rep 3 3
        h16_colon, ls32, flow_port], [Rep 0 3 HEXDIG, Ch 58 58, Rep 2 2 h16_colon, ls32,
        flow_port], [Rep 0 3 HEXDIG, Ch 58 58, h16_colon, ls32, flow_port], [Rep 0 3 HEXDIG, Ch 58
        58, ls32, flow_port], [Rep 0 3 HEXDIG, Cat (Ch 58 58) h16, flow_port], [Cat (Ch 46 46)
        (Cat dec_octet (Cat (Ch 46 46) (Cat dec_octet (Cat (Ch 46 46) dec_octet)))), flow_port],
        [DIGIT, Cat (Ch 46 46) (Cat dec_octet (Cat (Ch 46 46) (Cat dec_octet (Cat (Ch 46 46)
        dec_octet)))), flow_port], [Cat (Ch 48 52) DIGIT, Cat (Ch 46 46) (Cat dec_octet (Cat (Ch
        46 46) (Cat dec_octet (Cat (Ch 46 46) dec_octet)))), flow_port], [Cat (Ch 53 53) (Ch 48
        53), Cat (Ch 46 46) (Cat dec_octet (Cat (Ch 46 46) (Cat dec_octet (Cat (Ch 46 46)
        dec_octet)))), flow_port], [Rep 0 3 HEXDIG, flow_port]], []]])
      else
      if s = 155 then ([-128, 46, 47, 48, 54, 58, 59, 65, 71, 95, 96, 97, 103], [[[], [[Rep 0 2
        HEXDIG, Ch 58 58, Rep 3 3 h16_colon, ls32, Ch 95 95], [Rep 0 2 HEXDIG, Ch 58 58, Rep 2 2
        h16_colon, ls32, Ch 95 95], [Rep 0 2 HEXDIG, Ch 58 58, h16_colon, ls32, Ch 95 95], [Rep 0
        2 HEXDIG, Ch 58 58, ls32, Ch 95 95], [Rep 0 2 HEXDIG, Cat (Ch 58 58) h16, Ch 95 95], [Cat
        (Ch 46 46) (Cat dec_octet (Cat (Ch 46 46) (Cat dec_octet (Cat (Ch 46 46) dec_octet)))), Ch
        95 95], [Ch 48 53, Cat (Ch 46 46) (Cat dec_octet (Cat (Ch 46 46) (Cat dec_octet (Cat (Ch
        46 46) dec_octet)))), Ch 95 95], [Rep 0 2 HEXDIG, Ch 95 95]], [[Rep 0 2 HEXDIG, Ch 58 58,
        Rep 3 3 h16_colon, ls32, flow_port], [Rep 0 2 HEXDIG, Ch 58 58, Rep 2 2 h16_colon, ls32,
        flow_port], [Rep 0 2 HEXDIG, Ch 58 58, h16_colon, ls32, flow_port], [Rep 0 2 HEXDIG, Ch 58
        58, ls32, flow_port], [Rep 0 2 HEXDIG, Cat (Ch 58 58) h16, flow_port], [Cat (Ch 46 46)
        (Cat dec_octet (Cat (Ch 46 46) (Cat dec_octet (Cat (Ch 46 46) dec_octet)))), flow_port],
        [Ch 48 53, Cat (Ch 46 46) (Cat dec_octet (Cat (Ch 46 46) (Cat dec_octet (Cat (Ch 46 46)
        dec_octet)))), flow_port], [Rep 0 2 HEXDIG, flow_port]], []]])
      else
      ([-128, 46, 47, 48, 58, 59, 65, 71, 95, 96, 97, 103], [[[], [[Rep 0 2 HEXDIG, Ch 58 58, Rep
        3 3 h16_colon, ls32, Ch 95 95], [Rep 0 2 HEXDIG, Ch 58 58, Rep 2 2 h16_colon, ls32, Ch 95
        95], [Rep 0 2 HEXDIG, Ch 58 58, h16_colon, ls32, Ch 95 95], [Rep 0 2 HEXDIG, Ch 58 58,
        ls32, Ch 95 95], [Rep 0 2 HEXDIG, Cat (Ch 58 58) h16, Ch 95 95], [Cat (Ch 46 46) (Cat
        dec_octet (Cat (Ch 46 46) (Cat dec_octet (Cat (Ch 46 46) dec_octet)))), Ch 95 95], [Rep 0
        2 HEXDIG, Ch 95 95]], [[Rep 0 2 HEXDIG, Ch 58 58, Rep 3 3 h16_colon, ls32, flow_port],
        [Rep 0 2 HEXDIG, Ch 58 58, Rep 2 2 h16_colon, ls32, flow_port], [Rep 0 2 HEXDIG, Ch 58 58,
        h16_colon, ls32, flow_port], [Rep 0 2 HEXDIG, Ch 58 58, ls32, flow_port], [Rep 0 2 HEXDIG,
        Cat (Ch 58 58) h16, flow_port], [Cat (Ch 46 46) (Cat dec_octet (Cat (Ch 46 46) (Cat
        dec_octet (Cat (Ch 46 46) dec_octet)))), flow_port], [Rep 0 2 HEXDIG, flow_port]], []]]))"

definition flow_expects_14 :: certificate where
  "flow_expects_14 s =
     (if s = 157 then ([-128, 46, 47, 48, 58, 59, 65, 71, 95, 96, 97, 103], [[[], [[Rep 0 3
        HEXDIG, Ch 58 58, Rep 3 3 h16_colon, ls32, Ch 95 95], [Rep 0 3 HEXDIG, Ch 58 58, Rep 2 2
        h16_colon, ls32, Ch 95 95], [Rep 0 3 HEXDIG, Ch 58 58, h16_colon, ls32, Ch 95 95], [Rep 0
        3 HEXDIG, Ch 58 58, ls32, Ch 95 95], [Rep 0 3 HEXDIG, Cat (Ch 58 58) h16, Ch 95 95], [Cat
        (Ch 46 46) (Cat dec_octet (Cat (Ch 46 46) (Cat dec_octet (Cat (Ch 46 46) dec_octet)))), Ch
        95 95], [DIGIT, Cat (Ch 46 46) (Cat dec_octet (Cat (Ch 46 46) (Cat dec_octet (Cat (Ch 46
        46) dec_octet)))), Ch 95 95], [Rep 0 3 HEXDIG, Ch 95 95]], [[Rep 0 3 HEXDIG, Ch 58 58, Rep
        3 3 h16_colon, ls32, flow_port], [Rep 0 3 HEXDIG, Ch 58 58, Rep 2 2 h16_colon, ls32,
        flow_port], [Rep 0 3 HEXDIG, Ch 58 58, h16_colon, ls32, flow_port], [Rep 0 3 HEXDIG, Ch 58
        58, ls32, flow_port], [Rep 0 3 HEXDIG, Cat (Ch 58 58) h16, flow_port], [Cat (Ch 46 46)
        (Cat dec_octet (Cat (Ch 46 46) (Cat dec_octet (Cat (Ch 46 46) dec_octet)))), flow_port],
        [DIGIT, Cat (Ch 46 46) (Cat dec_octet (Cat (Ch 46 46) (Cat dec_octet (Cat (Ch 46 46)
        dec_octet)))), flow_port], [Rep 0 3 HEXDIG, flow_port]], []]])
      else
      if s = 158 then ([-128, 48, 58, 59, 65, 71, 95, 96, 97, 103], [[[], [[Rep 0 3 HEXDIG, Ch 58
        58, Rep 3 3 h16_colon, ls32, Ch 95 95], [Rep 0 3 HEXDIG, Ch 58 58, Rep 2 2 h16_colon,
        ls32, Ch 95 95], [Rep 0 3 HEXDIG, Ch 58 58, h16_colon, ls32, Ch 95 95], [Rep 0 3 HEXDIG,
        Ch 58 58, ls32, Ch 95 95], [Rep 0 3 HEXDIG, Cat (Ch 58 58) h16, Ch 95 95], [Rep 0 3
        HEXDIG, Ch 95 95]], [[Rep 0 3 HEXDIG, Ch 58 58, Rep 3 3 h16_colon, ls32, flow_port], [Rep
        0 3 HEXDIG, Ch 58 58, Rep 2 2 h16_colon, ls32, flow_port], [Rep 0 3 HEXDIG, Ch 58 58,
        h16_colon, ls32, flow_port], [Rep 0 3 HEXDIG, Ch 58 58, ls32, flow_port], [Rep 0 3 HEXDIG,
        Cat (Ch 58 58) h16, flow_port], [Rep 0 3 HEXDIG, flow_port]], []]])
      else
      if s = 159 then ([-128, 46, 47, 48, 58, 59, 65, 71, 97, 103], [[[[Cat (Ch 46 46) (Cat
        dec_octet (Cat (Ch 46 46) (Cat dec_octet (Cat (Ch 46 46) dec_octet)))), Ch 95 95], [DIGIT,
        Cat (Ch 46 46) (Cat dec_octet (Cat (Ch 46 46) (Cat dec_octet (Cat (Ch 46 46)
        dec_octet)))), Ch 95 95], [Rep 2 2 DIGIT, Cat (Ch 46 46) (Cat dec_octet (Cat (Ch 46 46)
        (Cat dec_octet (Cat (Ch 46 46) dec_octet)))), Ch 95 95]], [[Rep 0 3 HEXDIG, Ch 58 58, Rep
        5 5 h16_colon, ls32, Ch 95 95], [Rep 0 3 HEXDIG, Cat dcolon (Cat (Rep 4 4 h16_colon)
        ls32), Ch 95 95], [Rep 0 3 HEXDIG, Cat dcolon (Cat (Rep 3 3 h16_colon) ls32), Ch 95 95],
        [Rep 0 3 HEXDIG, Ch 58 58, h16, Cat dcolon (Cat (Rep 3 3 h16_colon) ls32), Ch 95 95], [Rep
        0 3 HEXDIG, Cat dcolon (Cat (Rep 2 2 h16_colon) ls32), Ch 95 95], [Rep 0 3 HEXDIG, Ch 58
        58, Rep 0 1 h16_colon, h16, Cat dcolon (Cat (Rep 2 2 h16_colon) ls32), Ch 95 95], [Rep 0 3
        HEXDIG, Cat dcolon (Cat h16_colon ls32), Ch 95 95], [Rep 0 3 HEXDIG, Ch 58 58, Rep 0 2
        h16_colon, h16, Cat dcolon (Cat h16_colon ls32), Ch 95 95], [Rep 0 3 HEXDIG, Cat dcolon
        ls32, Ch 95 95], [Rep 0 3 HEXDIG, Ch 58 58, Rep 0 3 h16_colon, h16, Cat dcolon ls32, Ch 95
        95], [Rep 0 3 HEXDIG, Cat dcolon h16, Ch 95 95], [Rep 0 3 HEXDIG, Ch 58 58, Rep 0 4
        h16_colon, h16, Cat dcolon h16, Ch 95 95], [Rep 0 3 HEXDIG, dcolon, Ch 95 95], [Rep 0 3
        HEXDIG, Ch 58 58, Rep 0 5 h16_colon, h16, dcolon, Ch 95 95]], [[Cat (Ch 46 46) (Cat
        dec_octet (Cat (Ch 46 46) (Cat dec_octet (Cat (Ch 46 46) dec_octet)))), flow_port],
        [DIGIT, Cat (Ch 46 46) (Cat dec_octet (Cat (Ch 46 46) (Cat dec_octet (Cat (Ch 46 46)
        dec_octet)))), flow_port], [Rep 2 2 DIGIT, Cat (Ch 46 46) (Cat dec_octet (Cat (Ch 46 46)
        (Cat dec_octet (Cat (Ch 46 46) dec_octet)))), flow_port], [Rep 0 3 HEXDIG, Ch 58 58, Rep 5
        5 h16_colon, ls32, flow_port], [Rep 0 3 HEXDIG, Cat dcolon (Cat (Rep 4 4 h16_colon) ls32),
        flow_port], [Rep 0 3 HEXDIG, Cat dcolon (Cat (Rep 3 3 h16_colon) ls32), flow_port], [Rep 0
        3 HEXDIG, Ch 58 58, h16, Cat dcolon (Cat (Rep 3 3 h16_colon) ls32), flow_port], [Rep 0 3
        HEXDIG, Cat dcolon (Cat (Rep 2 2 h16_colon) ls32), flow_port], [Rep 0 3 HEXDIG, Ch 58 58,
        Rep 0 1 h16_colon, h16, Cat dcolon (Cat (Rep 2 2 h16_colon) ls32), flow_port], [Rep 0 3
        HEXDIG, Cat dcolon (Cat h16_colon ls32), flow_port], [Rep 0 3 HEXDIG, Ch 58 58, Rep 0 2
        h16_colon, h16, Cat dcolon (Cat h16_colon ls32), flow_port], [Rep 0 3 HEXDIG, Cat dcolon
        ls32, flow_port], [Rep 0 3 HEXDIG, Ch 58 58, Rep 0 3 h16_colon, h16, Cat dcolon ls32,
        flow_port], [Rep 0 3 HEXDIG, Cat dcolon h16, flow_port], [Rep 0 3 HEXDIG, Ch 58 58, Rep 0
        4 h16_colon, h16, Cat dcolon h16, flow_port], [Rep 0 3 HEXDIG, dcolon, flow_port], [Rep 0
        3 HEXDIG, Ch 58 58, Rep 0 5 h16_colon, h16, dcolon, flow_port]], []]])
      else
      if s = 160 then ([-128, 46, 47, 48, 58, 59, 65, 71, 97, 103], [[[[Cat (Ch 46 46) (Cat
        dec_octet (Cat (Ch 46 46) (Cat dec_octet (Cat (Ch 46 46) dec_octet)))), Ch 95 95], [DIGIT,
        Cat (Ch 46 46) (Cat dec_octet (Cat (Ch 46 46) (Cat dec_octet (Cat (Ch 46 46)
        dec_octet)))), Ch 95 95]], [[Rep 0 2 HEXDIG, Ch 58 58, Rep 5 5 h16_colon, ls32, Ch 95 95],
        [Rep 0 2 HEXDIG, Cat dcolon (Cat (Rep 4 4 h16_colon) ls32), Ch 95 95], [Rep 0 2 HEXDIG,
        Cat dcolon (Cat (Rep 3 3 h16_colon) ls32), Ch 95 95], [Rep 0 2 HEXDIG, Ch 58 58, h16, Cat
        dcolon (Cat (Rep 3 3 h16_colon) ls32), Ch 95 95], [Rep 0 2 HEXDIG, Cat dcolon (Cat (Rep 2
        2 h16_colon) ls32), Ch 95 95], [Rep 0 2 HEXDIG, Ch 58 58, Rep 0 1 h16_colon, h16, Cat
        dcolon (Cat (Rep 2 2 h16_colon) ls32), Ch 95 95], [Rep 0 2 HEXDIG, Cat dcolon (Cat
        h16_colon ls32), Ch 95 95], [Rep 0 2 HEXDIG, Ch 58 58, Rep 0 2 h16_colon, h16, Cat dcolon
        (Cat h16_colon ls32), Ch 95 95], [Rep 0 2 HEXDIG, Cat dcolon ls32, Ch 95 95], [Rep 0 2
        HEXDIG, Ch 58 58, Rep 0 3 h16_colon, h16, Cat dcolon ls32, Ch 95 95], [Rep 0 2 HEXDIG, Cat
        dcolon h16, Ch 95 95], [Rep 0 2 HEXDIG, Ch 58 58, Rep 0 4 h16_colon, h16, Cat dcolon h16,
        Ch 95 95], [Rep 0 2 HEXDIG, dcolon, Ch 95 95], [Rep 0 2 HEXDIG, Ch 58 58, Rep 0 5
        h16_colon, h16, dcolon, Ch 95 95]], [[Cat (Ch 46 46) (Cat dec_octet (Cat (Ch 46 46) (Cat
        dec_octet (Cat (Ch 46 46) dec_octet)))), flow_port], [DIGIT, Cat (Ch 46 46) (Cat dec_octet
        (Cat (Ch 46 46) (Cat dec_octet (Cat (Ch 46 46) dec_octet)))), flow_port], [Rep 0 2 HEXDIG,
        Ch 58 58, Rep 5 5 h16_colon, ls32, flow_port], [Rep 0 2 HEXDIG, Cat dcolon (Cat (Rep 4 4
        h16_colon) ls32), flow_port], [Rep 0 2 HEXDIG, Cat dcolon (Cat (Rep 3 3 h16_colon) ls32),
        flow_port], [Rep 0 2 HEXDIG, Ch 58 58, h16, Cat dcolon (Cat (Rep 3 3 h16_colon) ls32),
        flow_port], [Rep 0 2 HEXDIG, Cat dcolon (Cat (Rep 2 2 h16_colon) ls32), flow_port], [Rep 0
        2 HEXDIG, Ch 58 58, Rep 0 1 h16_colon, h16, Cat dcolon (Cat (Rep 2 2 h16_colon) ls32),
        flow_port], [Rep 0 2 HEXDIG, Cat dcolon (Cat h16_colon ls32), flow_port], [Rep 0 2 HEXDIG,
        Ch 58 58, Rep 0 2 h16_colon, h16, Cat dcolon (Cat h16_colon ls32), flow_port], [Rep 0 2
        HEXDIG, Cat dcolon ls32, flow_port], [Rep 0 2 HEXDIG, Ch 58 58, Rep 0 3 h16_colon, h16,
        Cat dcolon ls32, flow_port], [Rep 0 2 HEXDIG, Cat dcolon h16, flow_port], [Rep 0 2 HEXDIG,
        Ch 58 58, Rep 0 4 h16_colon, h16, Cat dcolon h16, flow_port], [Rep 0 2 HEXDIG, dcolon,
        flow_port], [Rep 0 2 HEXDIG, Ch 58 58, Rep 0 5 h16_colon, h16, dcolon, flow_port]], []]])
      else
      if s = 161 then ([-128, 46, 47, 48, 58, 59, 65, 71, 97, 103], [[[[Cat (Ch 46 46) (Cat
        dec_octet (Cat (Ch 46 46) (Cat dec_octet (Cat (Ch 46 46) dec_octet)))), Ch 95 95]], [[Rep
        0 1 HEXDIG, Ch 58 58, Rep 5 5 h16_colon, ls32, Ch 95 95], [Rep 0 1 HEXDIG, Cat dcolon (Cat
        (Rep 4 4 h16_colon) ls32), Ch 95 95], [Rep 0 1 HEXDIG, Cat dcolon (Cat (Rep 3 3 h16_colon)
        ls32), Ch 95 95], [Rep 0 1 HEXDIG, Ch 58 58, h16, Cat dcolon (Cat (Rep 3 3 h16_colon)
        ls32), Ch 95 95], [Rep 0 1 HEXDIG, Cat dcolon (Cat (Rep 2 2 h16_colon) ls32), Ch 95 95],
        [Rep 0 1 HEXDIG, Ch 58 58, Rep 0 1 h16_colon, h16, Cat dcolon (Cat (Rep 2 2 h16_colon)
        ls32), Ch 95 95], [Rep 0 1 HEXDIG, Cat dcolon (Cat h16_colon ls32), Ch 95 95], [Rep 0 1
        HEXDIG, Ch 58 58, Rep 0 2 h16_colon, h16, Cat dcolon (Cat h16_colon ls32), Ch 95 95], [Rep
        0 1 HEXDIG, Cat dcolon ls32, Ch 95 95], [Rep 0 1 HEXDIG, Ch 58 58, Rep 0 3 h16_colon, h16,
        Cat dcolon ls32, Ch 95 95], [Rep 0 1 HEXDIG, Cat dcolon h16, Ch 95 95], [Rep 0 1 HEXDIG,
        Ch 58 58, Rep 0 4 h16_colon, h16, Cat dcolon h16, Ch 95 95], [Rep 0 1 HEXDIG, dcolon, Ch
        95 95], [Rep 0 1 HEXDIG, Ch 58 58, Rep 0 5 h16_colon, h16, dcolon, Ch 95 95]], [[Cat (Ch
        46 46) (Cat dec_octet (Cat (Ch 46 46) (Cat dec_octet (Cat (Ch 46 46) dec_octet)))),
        flow_port], [Rep 0 1 HEXDIG, Ch 58 58, Rep 5 5 h16_colon, ls32, flow_port], [Rep 0 1
        HEXDIG, Cat dcolon (Cat (Rep 4 4 h16_colon) ls32), flow_port], [Rep 0 1 HEXDIG, Cat dcolon
        (Cat (Rep 3 3 h16_colon) ls32), flow_port], [Rep 0 1 HEXDIG, Ch 58 58, h16, Cat dcolon
        (Cat (Rep 3 3 h16_colon) ls32), flow_port], [Rep 0 1 HEXDIG, Cat dcolon (Cat (Rep 2 2
        h16_colon) ls32), flow_port], [Rep 0 1 HEXDIG, Ch 58 58, Rep 0 1 h16_colon, h16, Cat
        dcolon (Cat (Rep 2 2 h16_colon) ls32), flow_port], [Rep 0 1 HEXDIG, Cat dcolon (Cat
        h16_colon ls32), flow_port], [Rep 0 1 HEXDIG, Ch 58 58, Rep 0 2 h16_colon, h16, Cat dcolon
        (Cat h16_colon ls32), flow_port], [Rep 0 1 HEXDIG, Cat dcolon ls32, flow_port], [Rep 0 1
        HEXDIG, Ch 58 58, Rep 0 3 h16_colon, h16, Cat dcolon ls32, flow_port], [Rep 0 1 HEXDIG,
        Cat dcolon h16, flow_port], [Rep 0 1 HEXDIG, Ch 58 58, Rep 0 4 h16_colon, h16, Cat dcolon
        h16, flow_port], [Rep 0 1 HEXDIG, dcolon, flow_port], [Rep 0 1 HEXDIG, Ch 58 58, Rep 0 5
        h16_colon, h16, dcolon, flow_port]], []]])
      else
      if s = 162 then ([-128, 46, 47, 48, 53, 54, 58, 59, 65, 71, 97, 103], [[[[Cat (Ch 46 46)
        (Cat dec_octet (Cat (Ch 46 46) (Cat dec_octet (Cat (Ch 46 46) dec_octet)))), Ch 95 95],
        [DIGIT, Cat (Ch 46 46) (Cat dec_octet (Cat (Ch 46 46) (Cat dec_octet (Cat (Ch 46 46)
        dec_octet)))), Ch 95 95], [Cat (Ch 48 52) DIGIT, Cat (Ch 46 46) (Cat dec_octet (Cat (Ch 46
        46) (Cat dec_octet (Cat (Ch 46 46) dec_octet)))), Ch 95 95], [Cat (Ch 53 53) (Ch 48 53),
        Cat (Ch 46 46) (Cat dec_octet (Cat (Ch 46 46) (Cat dec_octet (Cat (Ch 46 46)
        dec_octet)))), Ch 95 95]], [[Rep 0 3 HEXDIG, Ch 58 58, Rep 5 5 h16_colon, ls32, Ch 95 95],
        [Rep 0 3 HEXDIG, Cat dcolon (Cat (Rep 4 4 h16_colon) ls32), Ch 95 95], [Rep 0 3 HEXDIG,
        Cat dcolon (Cat (Rep 3 3 h16_colon) ls32), Ch 95 95], [Rep 0 3 HEXDIG, Ch 58 58, h16, Cat
        dcolon (Cat (Rep 3 3 h16_colon) ls32), Ch 95 95], [Rep 0 3 HEXDIG, Cat dcolon (Cat (Rep 2
        2 h16_colon) ls32), Ch 95 95], [Rep 0 3 HEXDIG, Ch 58 58, Rep 0 1 h16_colon, h16, Cat
        dcolon (Cat (Rep 2 2 h16_colon) ls32), Ch 95 95], [Rep 0 3 HEXDIG, Cat dcolon (Cat
        h16_colon ls32), Ch 95 95], [Rep 0 3 HEXDIG, Ch 58 58, Rep 0 2 h16_colon, h16, Cat dcolon
        (Cat h16_colon ls32), Ch 95 95], [Rep 0 3 HEXDIG, Cat dcolon ls32, Ch 95 95], [Rep 0 3
        HEXDIG, Ch 58 58, Rep 0 3 h16_colon, h16, Cat dcolon ls32, Ch 95 95], [Rep 0 3 HEXDIG, Cat
        dcolon h16, Ch 95 95], [Rep 0 3 HEXDIG, Ch 58 58, Rep 0 4 h16_colon, h16, Cat dcolon h16,
        Ch 95 95], [Rep 0 3 HEXDIG, dcolon, Ch 95 95], [Rep 0 3 HEXDIG, Ch 58 58, Rep 0 5
        h16_colon, h16, dcolon, Ch 95 95]], [[Cat (Ch 46 46) (Cat dec_octet (Cat (Ch 46 46) (Cat
        dec_octet (Cat (Ch 46 46) dec_octet)))), flow_port], [DIGIT, Cat (Ch 46 46) (Cat dec_octet
        (Cat (Ch 46 46) (Cat dec_octet (Cat (Ch 46 46) dec_octet)))), flow_port], [Cat (Ch 48 52)
        DIGIT, Cat (Ch 46 46) (Cat dec_octet (Cat (Ch 46 46) (Cat dec_octet (Cat (Ch 46 46)
        dec_octet)))), flow_port], [Cat (Ch 53 53) (Ch 48 53), Cat (Ch 46 46) (Cat dec_octet (Cat
        (Ch 46 46) (Cat dec_octet (Cat (Ch 46 46) dec_octet)))), flow_port], [Rep 0 3 HEXDIG, Ch
        58 58, Rep 5 5 h16_colon, ls32, flow_port], [Rep 0 3 HEXDIG, Cat dcolon (Cat (Rep 4 4
        h16_colon) ls32), flow_port], [Rep 0 3 HEXDIG, Cat dcolon (Cat (Rep 3 3 h16_colon) ls32),
        flow_port], [Rep 0 3 HEXDIG, Ch 58 58, h16, Cat dcolon (Cat (Rep 3 3 h16_colon) ls32),
        flow_port], [Rep 0 3 HEXDIG, Cat dcolon (Cat (Rep 2 2 h16_colon) ls32), flow_port], [Rep 0
        3 HEXDIG, Ch 58 58, Rep 0 1 h16_colon, h16, Cat dcolon (Cat (Rep 2 2 h16_colon) ls32),
        flow_port], [Rep 0 3 HEXDIG, Cat dcolon (Cat h16_colon ls32), flow_port], [Rep 0 3 HEXDIG,
        Ch 58 58, Rep 0 2 h16_colon, h16, Cat dcolon (Cat h16_colon ls32), flow_port], [Rep 0 3
        HEXDIG, Cat dcolon ls32, flow_port], [Rep 0 3 HEXDIG, Ch 58 58, Rep 0 3 h16_colon, h16,
        Cat dcolon ls32, flow_port], [Rep 0 3 HEXDIG, Cat dcolon h16, flow_port], [Rep 0 3 HEXDIG,
        Ch 58 58, Rep 0 4 h16_colon, h16, Cat dcolon h16, flow_port], [Rep 0 3 HEXDIG, dcolon,
        flow_port], [Rep 0 3 HEXDIG, Ch 58 58, Rep 0 5 h16_colon, h16, dcolon, flow_port]], []]])
      else
      if s = 163 then ([-128, 46, 47, 48, 54, 58, 59, 65, 71, 97, 103], [[[[Cat (Ch 46 46) (Cat
        dec_octet (Cat (Ch 46 46) (Cat dec_octet (Cat (Ch 46 46) dec_octet)))), Ch 95 95], [Ch 48
        53, Cat (Ch 46 46) (Cat dec_octet (Cat (Ch 46 46) (Cat dec_octet (Cat (Ch 46 46)
        dec_octet)))), Ch 95 95]], [[Rep 0 2 HEXDIG, Ch 58 58, Rep 5 5 h16_colon, ls32, Ch 95 95],
        [Rep 0 2 HEXDIG, Cat dcolon (Cat (Rep 4 4 h16_colon) ls32), Ch 95 95], [Rep 0 2 HEXDIG,
        Cat dcolon (Cat (Rep 3 3 h16_colon) ls32), Ch 95 95], [Rep 0 2 HEXDIG, Ch 58 58, h16, Cat
        dcolon (Cat (Rep 3 3 h16_colon) ls32), Ch 95 95], [Rep 0 2 HEXDIG, Cat dcolon (Cat (Rep 2
        2 h16_colon) ls32), Ch 95 95], [Rep 0 2 HEXDIG, Ch 58 58, Rep 0 1 h16_colon, h16, Cat
        dcolon (Cat (Rep 2 2 h16_colon) ls32), Ch 95 95], [Rep 0 2 HEXDIG, Cat dcolon (Cat
        h16_colon ls32), Ch 95 95], [Rep 0 2 HEXDIG, Ch 58 58, Rep 0 2 h16_colon, h16, Cat dcolon
        (Cat h16_colon ls32), Ch 95 95], [Rep 0 2 HEXDIG, Cat dcolon ls32, Ch 95 95], [Rep 0 2
        HEXDIG, Ch 58 58, Rep 0 3 h16_colon, h16, Cat dcolon ls32, Ch 95 95], [Rep 0 2 HEXDIG, Cat
        dcolon h16, Ch 95 95], [Rep 0 2 HEXDIG, Ch 58 58, Rep 0 4 h16_colon, h16, Cat dcolon h16,
        Ch 95 95], [Rep 0 2 HEXDIG, dcolon, Ch 95 95], [Rep 0 2 HEXDIG, Ch 58 58, Rep 0 5
        h16_colon, h16, dcolon, Ch 95 95]], [[Cat (Ch 46 46) (Cat dec_octet (Cat (Ch 46 46) (Cat
        dec_octet (Cat (Ch 46 46) dec_octet)))), flow_port], [Ch 48 53, Cat (Ch 46 46) (Cat
        dec_octet (Cat (Ch 46 46) (Cat dec_octet (Cat (Ch 46 46) dec_octet)))), flow_port], [Rep 0
        2 HEXDIG, Ch 58 58, Rep 5 5 h16_colon, ls32, flow_port], [Rep 0 2 HEXDIG, Cat dcolon (Cat
        (Rep 4 4 h16_colon) ls32), flow_port], [Rep 0 2 HEXDIG, Cat dcolon (Cat (Rep 3 3
        h16_colon) ls32), flow_port], [Rep 0 2 HEXDIG, Ch 58 58, h16, Cat dcolon (Cat (Rep 3 3
        h16_colon) ls32), flow_port], [Rep 0 2 HEXDIG, Cat dcolon (Cat (Rep 2 2 h16_colon) ls32),
        flow_port], [Rep 0 2 HEXDIG, Ch 58 58, Rep 0 1 h16_colon, h16, Cat dcolon (Cat (Rep 2 2
        h16_colon) ls32), flow_port], [Rep 0 2 HEXDIG, Cat dcolon (Cat h16_colon ls32),
        flow_port], [Rep 0 2 HEXDIG, Ch 58 58, Rep 0 2 h16_colon, h16, Cat dcolon (Cat h16_colon
        ls32), flow_port], [Rep 0 2 HEXDIG, Cat dcolon ls32, flow_port], [Rep 0 2 HEXDIG, Ch 58
        58, Rep 0 3 h16_colon, h16, Cat dcolon ls32, flow_port], [Rep 0 2 HEXDIG, Cat dcolon h16,
        flow_port], [Rep 0 2 HEXDIG, Ch 58 58, Rep 0 4 h16_colon, h16, Cat dcolon h16, flow_port],
        [Rep 0 2 HEXDIG, dcolon, flow_port], [Rep 0 2 HEXDIG, Ch 58 58, Rep 0 5 h16_colon, h16,
        dcolon, flow_port]], []]])
      else
      if s = 164 then ([-128, 46, 47, 48, 58, 59, 65, 71, 97, 103], [[[[Cat (Ch 46 46) (Cat
        dec_octet (Cat (Ch 46 46) (Cat dec_octet (Cat (Ch 46 46) dec_octet)))), Ch 95 95]], [[Rep
        0 2 HEXDIG, Ch 58 58, Rep 5 5 h16_colon, ls32, Ch 95 95], [Rep 0 2 HEXDIG, Cat dcolon (Cat
        (Rep 4 4 h16_colon) ls32), Ch 95 95], [Rep 0 2 HEXDIG, Cat dcolon (Cat (Rep 3 3 h16_colon)
        ls32), Ch 95 95], [Rep 0 2 HEXDIG, Ch 58 58, h16, Cat dcolon (Cat (Rep 3 3 h16_colon)
        ls32), Ch 95 95], [Rep 0 2 HEXDIG, Cat dcolon (Cat (Rep 2 2 h16_colon) ls32), Ch 95 95],
        [Rep 0 2 HEXDIG, Ch 58 58, Rep 0 1 h16_colon, h16, Cat dcolon (Cat (Rep 2 2 h16_colon)
        ls32), Ch 95 95], [Rep 0 2 HEXDIG, Cat dcolon (Cat h16_colon ls32), Ch 95 95], [Rep 0 2
        HEXDIG, Ch 58 58, Rep 0 2 h16_colon, h16, Cat dcolon (Cat h16_colon ls32), Ch 95 95], [Rep
        0 2 HEXDIG, Cat dcolon ls32, Ch 95 95], [Rep 0 2 HEXDIG, Ch 58 58, Rep 0 3 h16_colon, h16,
        Cat dcolon ls32, Ch 95 95], [Rep 0 2 HEXDIG, Cat dcolon h16, Ch 95 95], [Rep 0 2 HEXDIG,
        Ch 58 58, Rep 0 4 h16_colon, h16, Cat dcolon h16, Ch 95 95], [Rep 0 2 HEXDIG, dcolon, Ch
        95 95], [Rep 0 2 HEXDIG, Ch 58 58, Rep 0 5 h16_colon, h16, dcolon, Ch 95 95]], [[Cat (Ch
        46 46) (Cat dec_octet (Cat (Ch 46 46) (Cat dec_octet (Cat (Ch 46 46) dec_octet)))),
        flow_port], [Rep 0 2 HEXDIG, Ch 58 58, Rep 5 5 h16_colon, ls32, flow_port], [Rep 0 2
        HEXDIG, Cat dcolon (Cat (Rep 4 4 h16_colon) ls32), flow_port], [Rep 0 2 HEXDIG, Cat dcolon
        (Cat (Rep 3 3 h16_colon) ls32), flow_port], [Rep 0 2 HEXDIG, Ch 58 58, h16, Cat dcolon
        (Cat (Rep 3 3 h16_colon) ls32), flow_port], [Rep 0 2 HEXDIG, Cat dcolon (Cat (Rep 2 2
        h16_colon) ls32), flow_port], [Rep 0 2 HEXDIG, Ch 58 58, Rep 0 1 h16_colon, h16, Cat
        dcolon (Cat (Rep 2 2 h16_colon) ls32), flow_port], [Rep 0 2 HEXDIG, Cat dcolon (Cat
        h16_colon ls32), flow_port], [Rep 0 2 HEXDIG, Ch 58 58, Rep 0 2 h16_colon, h16, Cat dcolon
        (Cat h16_colon ls32), flow_port], [Rep 0 2 HEXDIG, Cat dcolon ls32, flow_port], [Rep 0 2
        HEXDIG, Ch 58 58, Rep 0 3 h16_colon, h16, Cat dcolon ls32, flow_port], [Rep 0 2 HEXDIG,
        Cat dcolon h16, flow_port], [Rep 0 2 HEXDIG, Ch 58 58, Rep 0 4 h16_colon, h16, Cat dcolon
        h16, flow_port], [Rep 0 2 HEXDIG, dcolon, flow_port], [Rep 0 2 HEXDIG, Ch 58 58, Rep 0 5
        h16_colon, h16, dcolon, flow_port]], []]])
      else
      if s = 165 then ([-128, 46, 47, 48, 58, 59, 65, 71, 97, 103], [[[[Cat (Ch 46 46) (Cat
        dec_octet (Cat (Ch 46 46) (Cat dec_octet (Cat (Ch 46 46) dec_octet)))), Ch 95 95], [DIGIT,
        Cat (Ch 46 46) (Cat dec_octet (Cat (Ch 46 46) (Cat dec_octet (Cat (Ch 46 46)
        dec_octet)))), Ch 95 95]], [[Rep 0 3 HEXDIG, Ch 58 58, Rep 5 5 h16_colon, ls32, Ch 95 95],
        [Rep 0 3 HEXDIG, Cat dcolon (Cat (Rep 4 4 h16_colon) ls32), Ch 95 95], [Rep 0 3 HEXDIG,
        Cat dcolon (Cat (Rep 3 3 h16_colon) ls32), Ch 95 95], [Rep 0 3 HEXDIG, Ch 58 58, h16, Cat
        dcolon (Cat (Rep 3 3 h16_colon) ls32), Ch 95 95], [Rep 0 3 HEXDIG, Cat dcolon (Cat (Rep 2
        2 h16_colon) ls32), Ch 95 95], [Rep 0 3 HEXDIG, Ch 58 58, Rep 0 1 h16_colon, h16, Cat
        dcolon (Cat (Rep 2 2 h16_colon) ls32), Ch 95 95], [Rep 0 3 HEXDIG, Cat dcolon (Cat
        h16_colon ls32), Ch 95 95], [Rep 0 3 HEXDIG, Ch 58 58, Rep 0 2 h16_colon, h16, Cat dcolon
        (Cat h16_colon ls32), Ch 95 95], [Rep 0 3 HEXDIG, Cat dcolon ls32, Ch 95 95], [Rep 0 3
        HEXDIG, Ch 58 58, Rep 0 3 h16_colon, h16, Cat dcolon ls32, Ch 95 95], [Rep 0 3 HEXDIG, Cat
        dcolon h16, Ch 95 95], [Rep 0 3 HEXDIG, Ch 58 58, Rep 0 4 h16_colon, h16, Cat dcolon h16,
        Ch 95 95], [Rep 0 3 HEXDIG, dcolon, Ch 95 95], [Rep 0 3 HEXDIG, Ch 58 58, Rep 0 5
        h16_colon, h16, dcolon, Ch 95 95]], [[Cat (Ch 46 46) (Cat dec_octet (Cat (Ch 46 46) (Cat
        dec_octet (Cat (Ch 46 46) dec_octet)))), flow_port], [DIGIT, Cat (Ch 46 46) (Cat dec_octet
        (Cat (Ch 46 46) (Cat dec_octet (Cat (Ch 46 46) dec_octet)))), flow_port], [Rep 0 3 HEXDIG,
        Ch 58 58, Rep 5 5 h16_colon, ls32, flow_port], [Rep 0 3 HEXDIG, Cat dcolon (Cat (Rep 4 4
        h16_colon) ls32), flow_port], [Rep 0 3 HEXDIG, Cat dcolon (Cat (Rep 3 3 h16_colon) ls32),
        flow_port], [Rep 0 3 HEXDIG, Ch 58 58, h16, Cat dcolon (Cat (Rep 3 3 h16_colon) ls32),
        flow_port], [Rep 0 3 HEXDIG, Cat dcolon (Cat (Rep 2 2 h16_colon) ls32), flow_port], [Rep 0
        3 HEXDIG, Ch 58 58, Rep 0 1 h16_colon, h16, Cat dcolon (Cat (Rep 2 2 h16_colon) ls32),
        flow_port], [Rep 0 3 HEXDIG, Cat dcolon (Cat h16_colon ls32), flow_port], [Rep 0 3 HEXDIG,
        Ch 58 58, Rep 0 2 h16_colon, h16, Cat dcolon (Cat h16_colon ls32), flow_port], [Rep 0 3
        HEXDIG, Cat dcolon ls32, flow_port], [Rep 0 3 HEXDIG, Ch 58 58, Rep 0 3 h16_colon, h16,
        Cat dcolon ls32, flow_port], [Rep 0 3 HEXDIG, Cat dcolon h16, flow_port], [Rep 0 3 HEXDIG,
        Ch 58 58, Rep 0 4 h16_colon, h16, Cat dcolon h16, flow_port], [Rep 0 3 HEXDIG, dcolon,
        flow_port], [Rep 0 3 HEXDIG, Ch 58 58, Rep 0 5 h16_colon, h16, dcolon, flow_port]], []]])
      else
      if s = 166 then ([-128, 58, 59], [[[], [[Ch 58 58, Cat (Rep 5 5 h16_colon) ls32, Ch 95 95],
        [Ch 58 58, Cat (Rep 4 4 h16_colon) ls32, Ch 95 95], [Ch 58 58, Cat (Rep 3 3 h16_colon)
        ls32, Ch 95 95], [Ch 58 58, Cat (Rep 2 2 h16_colon) ls32, Ch 95 95], [Ch 58 58, Cat
        h16_colon ls32, Ch 95 95], [Ch 58 58, ls32, Ch 95 95], [Ch 58 58, h16, Ch 95 95], [Ch 58
        58, Ch 95 95]], [[Ch 58 58, Cat (Rep 5 5 h16_colon) ls32, flow_port], [Ch 58 58, Cat (Rep
        4 4 h16_colon) ls32, flow_port], [Ch 58 58, Cat (Rep 3 3 h16_colon) ls32, flow_port], [Ch
        58 58, Cat (Rep 2 2 h16_colon) ls32, flow_port], [Ch 58 58, Cat h16_colon ls32,
        flow_port], [Ch 58 58, ls32, flow_port], [Ch 58 58, h16, flow_port], [Ch 58 58,
        flow_port]], []]])
      else
      if s = 167 then ([-128, 48, 49, 50, 51, 58, 65, 71, 95, 96, 97, 103], [[[], [[Cat (Rep 5 5
        h16_colon) ls32, Ch 95 95], [Cat (Rep 4 4 h16_colon) ls32, Ch 95 95], [Cat (Rep 3 3
        h16_colon) ls32, Ch 95 95], [Cat (Rep 2 2 h16_colon) ls32, Ch 95 95], [Cat h16_colon ls32,
        Ch 95 95], [ls32, Ch 95 95], [h16, Ch 95 95], [Ch 95 95]], [[Cat (Rep 5 5 h16_colon) ls32,
        flow_port], [Cat (Rep 4 4 h16_colon) ls32, flow_port], [Cat (Rep 3 3 h16_colon) ls32,
        flow_port], [Cat (Rep 2 2 h16_colon) ls32, flow_port], [Cat h16_colon ls32, flow_port],
        [ls32, flow_port], [h16, flow_port], [flow_port]], []]])
      else
      ([-128, 46, 47, 48, 58, 59, 65, 71, 95, 96, 97, 103], [[[], [[Rep 0 3 HEXDIG, Ch 58 58, Rep
        4 4 h16_colon, ls32, Ch 95 95], [Rep 0 3 HEXDIG, Ch 58 58, Rep 3 3 h16_colon, ls32, Ch 95
        95], [Rep 0 3 HEXDIG, Ch 58 58, Rep 2 2 h16_colon, ls32, Ch 95 95], [Rep 0 3 HEXDIG, Ch 58
        58, h16_colon, ls32, Ch 95 95], [Rep 0 3 HEXDIG, Ch 58 58, ls32, Ch 95 95], [Rep 0 3
        HEXDIG, Cat (Ch 58 58) h16, Ch 95 95], [Cat (Ch 46 46) (Cat dec_octet (Cat (Ch 46 46) (Cat
        dec_octet (Cat (Ch 46 46) dec_octet)))), Ch 95 95], [Rep 0 3 HEXDIG, Ch 95 95]], [[Rep 0 3
        HEXDIG, Ch 58 58, Rep 4 4 h16_colon, ls32, flow_port], [Rep 0 3 HEXDIG, Ch 58 58, Rep 3 3
        h16_colon, ls32, flow_port], [Rep 0 3 HEXDIG, Ch 58 58, Rep 2 2 h16_colon, ls32,
        flow_port], [Rep 0 3 HEXDIG, Ch 58 58, h16_colon, ls32, flow_port], [Rep 0 3 HEXDIG, Ch 58
        58, ls32, flow_port], [Rep 0 3 HEXDIG, Cat (Ch 58 58) h16, flow_port], [Cat (Ch 46 46)
        (Cat dec_octet (Cat (Ch 46 46) (Cat dec_octet (Cat (Ch 46 46) dec_octet)))), flow_port],
        [Rep 0 3 HEXDIG, flow_port]], []]]))"

definition flow_expects_15 :: certificate where
  "flow_expects_15 s =
     (if s = 169 then ([-128, 48, 58, 59, 65, 71, 95, 96, 97, 103], [[[], [[Rep 0 2 HEXDIG, Ch 58
        58, Rep 4 4 h16_colon, ls32, Ch 95 95], [Rep 0 2 HEXDIG, Ch 58 58, Rep 3 3 h16_colon,
        ls32, Ch 95 95], [Rep 0 2 HEXDIG, Ch 58 58, Rep 2 2 h16_colon, ls32, Ch 95 95], [Rep 0 2
        HEXDIG, Ch 58 58, h16_colon, ls32, Ch 95 95], [Rep 0 2 HEXDIG, Ch 58 58, ls32, Ch 95 95],
        [Rep 0 2 HEXDIG, Cat (Ch 58 58) h16, Ch 95 95], [Rep 0 2 HEXDIG, Ch 95 95]], [[Rep 0 2
        HEXDIG, Ch 58 58, Rep 4 4 h16_colon, ls32, flow_port], [Rep 0 2 HEXDIG, Ch 58 58, Rep 3 3
        h16_colon, ls32, flow_port], [Rep 0 2 HEXDIG, Ch 58 58, Rep 2 2 h16_colon, ls32,
        flow_port], [Rep 0 2 HEXDIG, Ch 58 58, h16_colon, ls32, flow_port], [Rep 0 2 HEXDIG, Ch 58
        58, ls32, flow_port], [Rep 0 2 HEXDIG, Cat (Ch 58 58) h16, flow_port], [Rep 0 2 HEXDIG,
        flow_port]], []]])
      else
      if s = 170 then ([-128, 48, 58, 59, 65, 71, 95, 96, 97, 103], [[[], [[Rep 0 1 HEXDIG, Ch 58
        58, Rep 4 4 h16_colon, ls32, Ch 95 95], [Rep 0 1 HEXDIG, Ch 58 58, Rep 3 3 h16_colon,
        ls32, Ch 95 95], [Rep 0 1 HEXDIG, Ch 58 58, Rep 2 2 h16_colon, ls32, Ch 95 95], [Rep 0 1
        HEXDIG, Ch 58 58, h16_colon, ls32, Ch 95 95], [Rep 0 1 HEXDIG, Ch 58 58, ls32, Ch 95 95],
        [Rep 0 1 HEXDIG, Cat (Ch 58 58) h16, Ch 95 95], [Rep 0 1 HEXDIG, Ch 95 95]], [[Rep 0 1
        HEXDIG, Ch 58 58, Rep 4 4 h16_colon, ls32, flow_port], [Rep 0 1 HEXDIG, Ch 58 58, Rep 3 3
        h16_colon, ls32, flow_port], [Rep 0 1 HEXDIG, Ch 58 58, Rep 2 2 h16_colon, ls32,
        flow_port], [Rep 0 1 HEXDIG, Ch 58 58, h16_colon, ls32, flow_port], [Rep 0 1 HEXDIG, Ch 58
        58, ls32, flow_port], [Rep 0 1 HEXDIG, Cat (Ch 58 58) h16, flow_port], [Rep 0 1 HEXDIG,
        flow_port]], []]])
      else
      if s = 171 then ([-128, 58, 59, 95, 96], [[[], [[Ch 58 58, Rep 4 4 h16_colon, ls32, Ch 95
        95], [Ch 58 58, Rep 3 3 h16_colon, ls32, Ch 95 95], [Ch 58 58, Rep 2 2 h16_colon, ls32, Ch
        95 95], [Ch 58 58, h16_colon, ls32, Ch 95 95], [Ch 58 58, ls32, Ch 95 95], [Cat (Ch 58 58)
        h16, Ch 95 95], [Ch 95 95]], [[Ch 58 58, Rep 4 4 h16_colon, ls32, flow_port], [Ch 58 58,
        Rep 3 3 h16_colon, ls32, flow_port], [Ch 58 58, Rep 2 2 h16_colon, ls32, flow_port], [Ch
        58 58, h16_colon, ls32, flow_port], [Ch 58 58, ls32, flow_port], [Cat (Ch 58 58) h16,
        flow_port], [flow_port]], []]])
      else
      if s = 172 then ([-128, 48, 49, 50, 51, 58, 65, 71, 97, 103], [[[], [[Rep 4 4 h16_colon,
        ls32, Ch 95 95], [Rep 3 3 h16_colon, ls32, Ch 95 95], [Rep 2 2 h16_colon, ls32, Ch 95 95],
        [h16_colon, ls32, Ch 95 95], [ls32, Ch 95 95], [h16, Ch 95 95]], [[Rep 4 4 h16_colon,
        ls32, flow_port], [Rep 3 3 h16_colon, ls32, flow_port], [Rep 2 2 h16_colon, ls32,
        flow_port], [h16_colon, ls32, flow_port], [ls32, flow_port], [h16, flow_port]], []]])
      else
      if s = 173 then ([-128, 46, 47, 48, 58, 59, 65, 71, 95, 96, 97, 103], [[[], [[Rep 0 3
        HEXDIG, Ch 58 58, Rep 4 4 h16_colon, ls32, Ch 95 95], [Rep 0 3 HEXDIG, Ch 58 58, Rep 3 3
        h16_colon, ls32, Ch 95 95], [Rep 0 3 HEXDIG, Ch 58 58, Rep 2 2 h16_colon, ls32, Ch 95 95],
        [Rep 0 3 HEXDIG, Ch 58 58, h16_colon, ls32, Ch 95 95], [Rep 0 3 HEXDIG, Ch 58 58, ls32, Ch
        95 95], [Rep 0 3 HEXDIG, Cat (Ch 58 58) h16, Ch 95 95], [Cat (Ch 46 46) (Cat dec_octet
        (Cat (Ch 46 46) (Cat dec_octet (Cat (Ch 46 46) dec_octet)))), Ch 95 95], [DIGIT, Cat (Ch
        46 46) (Cat dec_octet (Cat (Ch 46 46) (Cat dec_octet (Cat (Ch 46 46) dec_octet)))), Ch 95
        95], [Rep 2 2 DIGIT, Cat (Ch 46 46) (Cat dec_octet (Cat (Ch 46 46) (Cat dec_octet (Cat (Ch
        46 46) dec_octet)))), Ch 95 95], [Rep 0 3 HEXDIG, Ch 95 95]], [[Rep 0 3 HEXDIG, Ch 58 58,
        Rep 4 4 h16_colon, ls32, flow_port], [Rep 0 3 HEXDIG, Ch 58 58, Rep 3 3 h16_colon, ls32,
        flow_port], [Rep 0 3 HEXDIG, Ch 58 58, Rep 2 2 h16_colon, ls32, flow_port], [Rep 0 3
        HEXDIG, Ch 58 58, h16_colon, ls32, flow_port], [Rep 0 3 HEXDIG, Ch 58 58, ls32,
        flow_port], [Rep 0 3 HEXDIG, Cat (Ch 58 58) h16, flow_port], [Cat (Ch 46 46) (Cat
        dec_octet (Cat (Ch 46 46) (Cat dec_octet (Cat (Ch 46 46) dec_octet)))), flow_port],
        [DIGIT, Cat (Ch 46 46) (Cat dec_octet (Cat (Ch 46 46) (Cat dec_octet (Cat (Ch 46 46)
        dec_octet)))), flow_port], [Rep 2 2 DIGIT, Cat (Ch 46 46) (Cat dec_octet (Cat (Ch 46 46)
        (Cat dec_octet (Cat (Ch 46 46) dec_octet)))), flow_port], [Rep 0 3 HEXDIG, flow_port]],
        []]])
      else
      if s = 174 then ([-128, 46, 47, 48, 58, 59, 65, 71, 95, 96, 97, 103], [[[], [[Rep 0 2
        HEXDIG, Ch 58 58, Rep 4 4 h16_colon, ls32, Ch 95 95], [Rep 0 2 HEXDIG, Ch 58 58, Rep 3 3
        h16_colon, ls32, Ch 95 95], [Rep 0 2 HEXDIG, Ch 58 58, Rep 2 2 h16_colon, ls32, Ch 95 95],
        [Rep 0 2 HEXDIG, Ch 58 58, h16_colon, ls32, Ch 95 95], [Rep 0 2 HEXDIG, Ch 58 58, ls32, Ch
        95 95], [Rep 0 2 HEXDIG, Cat (Ch 58 58) h16, Ch 95 95], [Cat (Ch 46 46) (Cat dec_octet
        (Cat (Ch 46 46) (Cat dec_octet (Cat (Ch 46 46) dec_octet)))), Ch 95 95], [DIGIT, Cat (Ch
        46 46) (Cat dec_octet (Cat (Ch 46 46) (Cat dec_octet (Cat (Ch 46 46) dec_octet)))), Ch 95
        95], [Rep 0 2 HEXDIG, Ch 95 95]], [[Rep 0 2 HEXDIG, Ch 58 58, Rep 4 4 h16_colon, ls32,
        flow_port], [Rep 0 2 HEXDIG, Ch 58 58, Rep 3 3 h16_colon, ls32, flow_port], [Rep 0 2
        HEXDIG, Ch 58 58, Rep 2 2 h16_colon, ls32, flow_port], [Rep 0 2 HEXDIG, Ch 58 58,
        h16_colon, ls32, flow_port], [Rep 0 2 HEXDIG, Ch 58 58, ls32, flow_port], [Rep 0 2 HEXDIG,
        Cat (Ch 58 58) h16, flow_port], [Cat (Ch 46 46) (Cat dec_octet (Cat (Ch 46 46) (Cat
        dec_octet (Cat (Ch 46 46) dec_octet)))), flow_port], [DIGIT, Cat (Ch 46 46) (Cat dec_octet
        (Cat (Ch 46 46) (Cat dec_octet (Cat (Ch 46 46) dec_octet)))), flow_port], [Rep 0 2 HEXDIG,
        flow_port]], []]])
      else
      if s = 175 then ([-128, 46, 47, 48, 58, 59, 65, 71, 95, 96, 97, 103], [[[], [[Rep 0 1
        HEXDIG, Ch 58 58, Rep 4 4 h16_colon, ls32, Ch 95 95], [Rep 0 1 HEXDIG, Ch 58 58, Rep 3 3
        h16_colon, ls32, Ch 95 95], [Rep 0 1 HEXDIG, Ch 58 58, Rep 2 2 h16_colon, ls32, Ch 95 95],
        [Rep 0 1 HEXDIG, Ch 58 58, h16_colon, ls32, Ch 95 95], [Rep 0 1 HEXDIG, Ch 58 58, ls32, Ch
        95 95], [Rep 0 1 HEXDIG, Cat (Ch 58 58) h16, Ch 95 95], [Cat (Ch 46 46) (Cat dec_octet
        (Cat (Ch 46 46) (Cat dec_octet (Cat (Ch 46 46) dec_octet)))), Ch 95 95], [Rep 0 1 HEXDIG,
        Ch 95 95]], [[Rep 0 1 HEXDIG, Ch 58 58, Rep 4 4 h16_colon, ls32, flow_port], [Rep 0 1
        HEXDIG, Ch 58 58, Rep 3 3 h16_colon, ls32, flow_port], [Rep 0 1 HEXDIG, Ch 58 58, Rep 2 2
        h16_colon, ls32, flow_port], [Rep 0 1 HEXDIG, Ch 58 58, h16_colon, ls32, flow_port], [Rep
        0 1 HEXDIG, Ch 58 58, ls32, flow_port], [Rep 0 1 HEXDIG, Cat (Ch 58 58) h16, flow_port],
        [Cat (Ch 46 46) (Cat dec_octet (Cat (Ch 46 46) (Cat dec_octet (Cat (Ch 46 46)
        dec_octet)))), flow_port], [Rep 0 1 HEXDIG, flow_port]], []]])
      else
      if s = 176 then ([-128, 46, 47, 48, 53, 54, 58, 59, 65, 71, 95, 96, 97, 103], [[[], [[Rep 0
        3 HEXDIG, Ch 58 58, Rep 4 4 h16_colon, ls32, Ch 95 95], [Rep 0 3 HEXDIG, Ch 58 58, Rep 3 3
        h16_colon, ls32, Ch 95 95], [Rep 0 3 HEXDIG, Ch 58 58, Rep 2 2 h16_colon, ls32, Ch 95 95],
        [Rep 0 3 HEXDIG, Ch 58 58, h16_colon, ls32, Ch 95 95], [Rep 0 3 HEXDIG, Ch 58 58, ls32, Ch
        95 95], [Rep 0 3 HEXDIG, Cat (Ch 58 58) h16, Ch 95 95], [Cat (Ch 46 46) (Cat dec_octet
        (Cat (Ch 46 46) (Cat dec_octet (Cat (Ch 46 46) dec_octet)))), Ch 95 95], [DIGIT, Cat (Ch
        46 46) (Cat dec_octet (Cat (Ch 46 46) (Cat dec_octet (Cat (Ch 46 46) dec_octet)))), Ch 95
        95], [Cat (Ch 48 52) DIGIT, Cat (Ch 46 46) (Cat dec_octet (Cat (Ch 46 46) (Cat dec_octet
        (Cat (Ch 46 46) dec_octet)))), Ch 95 95], [Cat (Ch 53 53) (Ch 48 53), Cat (Ch 46 46) (Cat
        dec_octet (Cat (Ch 46 46) (Cat dec_octet (Cat (Ch 46 46) dec_octet)))), Ch 95 95], [Rep 0
        3 HEXDIG, Ch 95 95]], [[Rep 0 3 HEXDIG, Ch 58 58, Rep 4 4 h16_colon, ls32, flow_port],
        [Rep 0 3 HEXDIG, Ch 58 58, Rep 3 3 h16_colon, ls32, flow_port], [Rep 0 3 HEXDIG, Ch 58 58,
        Rep 2 2 h16_colon, ls32, flow_port], [Rep 0 3 HEXDIG, Ch 58 58, h16_colon, ls32,
        flow_port], [Rep 0 3 HEXDIG, Ch 58 58, ls32, flow_port], [Rep 0 3 HEXDIG, Cat (Ch 58 58)
        h16, flow_port], [Cat (Ch 46 46) (Cat dec_octet (Cat (Ch 46 46) (Cat dec_octet (Cat (Ch 46
        46) dec_octet)))), flow_port], [DIGIT, Cat (Ch 46 46) (Cat dec_octet (Cat (Ch 46 46) (Cat
        dec_octet (Cat (Ch 46 46) dec_octet)))), flow_port], [Cat (Ch 48 52) DIGIT, Cat (Ch 46 46)
        (Cat dec_octet (Cat (Ch 46 46) (Cat dec_octet (Cat (Ch 46 46) dec_octet)))), flow_port],
        [Cat (Ch 53 53) (Ch 48 53), Cat (Ch 46 46) (Cat dec_octet (Cat (Ch 46 46) (Cat dec_octet
        (Cat (Ch 46 46) dec_octet)))), flow_port], [Rep 0 3 HEXDIG, flow_port]], []]])
      else
      if s = 177 then ([-128, 46, 47, 48, 54, 58, 59, 65, 71, 95, 96, 97, 103], [[[], [[Rep 0 2
        HEXDIG, Ch 58 58, Rep 4 4 h16_colon, ls32, Ch 95 95], [Rep 0 2 HEXDIG, Ch 58 58, Rep 3 3
        h16_colon, ls32, Ch 95 95], [Rep 0 2 HEXDIG, Ch 58 58, Rep 2 2 h16_colon, ls32, Ch 95 95],
        [Rep 0 2 HEXDIG, Ch 58 58, h16_colon, ls32, Ch 95 95], [Rep 0 2 HEXDIG, Ch 58 58, ls32, Ch
        95 95], [Rep 0 2 HEXDIG, Cat (Ch 58 58) h16, Ch 95 95], [Cat (Ch 46 46) (Cat dec_octet
        (Cat (Ch 46 46) (Cat dec_octet (Cat (Ch 46 46) dec_octet)))), Ch 95 95], [Ch 48 53, Cat
        (Ch 46 46) (Cat dec_octet (Cat (Ch 46 46) (Cat dec_octet (Cat (Ch 46 46) dec_octet)))), Ch
        95 95], [Rep 0 2 HEXDIG, Ch 95 95]], [[Rep 0 2 HEXDIG, Ch 58 58, Rep 4 4 h16_colon, ls32,
        flow_port], [Rep 0 2 HEXDIG, Ch 58 58, Rep 3 3 h16_colon, ls32, flow_port], [Rep 0 2
        HEXDIG, Ch 58 58, Rep 2 2 h16_colon, ls32, flow_port], [Rep 0 2 HEXDIG, Ch 58 58,
        h16_colon, ls32, flow_port], [Rep 0 2 HEXDIG, Ch 58 58, ls32, flow_port], [Rep 0 2 HEXDIG,
        Cat (Ch 58 58) h16, flow_port], [Cat (Ch 46 46) (Cat dec_octet (Cat (Ch 46 46) (Cat
        dec_octet (Cat (Ch 46 46) dec_octet)))), flow_port], [Ch 48 53, Cat (Ch 46 46) (Cat
        dec_octet (Cat (Ch 46 46) (Cat dec_octet (Cat (Ch 46 46) dec_octet)))), flow_port], [Rep 0
        2 HEXDIG, flow_port]], []]])
      else
      if s = 178 then ([-128, 46, 47, 48, 58, 59, 65, 71, 95, 96, 97, 103], [[[], [[Rep 0 2
        HEXDIG, Ch 58 58, Rep 4 4 h16_colon, ls32, Ch 95 95], [Rep 0 2 HEXDIG, Ch 58 58, Rep 3 3
        h16_colon, ls32, Ch 95 95], [Rep 0 2 HEXDIG, Ch 58 58, Rep 2 2 h16_colon, ls32, Ch 95 95],
        [Rep 0 2 HEXDIG, Ch 58 58, h16_colon, ls32, Ch 95 95], [Rep 0 2 HEXDIG, Ch 58 58, ls32, Ch
        95 95], [Rep 0 2 HEXDIG, Cat (Ch 58 58) h16, Ch 95 95], [Cat (Ch 46 46) (Cat dec_octet
        (Cat (Ch 46 46) (Cat dec_octet (Cat (Ch 46 46) dec_octet)))), Ch 95 95], [Rep 0 2 HEXDIG,
        Ch 95 95]], [[Rep 0 2 HEXDIG, Ch 58 58, Rep 4 4 h16_colon, ls32, flow_port], [Rep 0 2
        HEXDIG, Ch 58 58, Rep 3 3 h16_colon, ls32, flow_port], [Rep 0 2 HEXDIG, Ch 58 58, Rep 2 2
        h16_colon, ls32, flow_port], [Rep 0 2 HEXDIG, Ch 58 58, h16_colon, ls32, flow_port], [Rep
        0 2 HEXDIG, Ch 58 58, ls32, flow_port], [Rep 0 2 HEXDIG, Cat (Ch 58 58) h16, flow_port],
        [Cat (Ch 46 46) (Cat dec_octet (Cat (Ch 46 46) (Cat dec_octet (Cat (Ch 46 46)
        dec_octet)))), flow_port], [Rep 0 2 HEXDIG, flow_port]], []]])
      else
      if s = 179 then ([-128, 46, 47, 48, 58, 59, 65, 71, 95, 96, 97, 103], [[[], [[Rep 0 3
        HEXDIG, Ch 58 58, Rep 4 4 h16_colon, ls32, Ch 95 95], [Rep 0 3 HEXDIG, Ch 58 58, Rep 3 3
        h16_colon, ls32, Ch 95 95], [Rep 0 3 HEXDIG, Ch 58 58, Rep 2 2 h16_colon, ls32, Ch 95 95],
        [Rep 0 3 HEXDIG, Ch 58 58, h16_colon, ls32, Ch 95 95], [Rep 0 3 HEXDIG, Ch 58 58, ls32, Ch
        95 95], [Rep 0 3 HEXDIG, Cat (Ch 58 58) h16, Ch 95 95], [Cat (Ch 46 46) (Cat dec_octet
        (Cat (Ch 46 46) (Cat dec_octet (Cat (Ch 46 46) dec_octet)))), Ch 95 95], [DIGIT, Cat (Ch
        46 46) (Cat dec_octet (Cat (Ch 46 46) (Cat dec_octet (Cat (Ch 46 46) dec_octet)))), Ch 95
        95], [Rep 0 3 HEXDIG, Ch 95 95]], [[Rep 0 3 HEXDIG, Ch 58 58, Rep 4 4 h16_colon, ls32,
        flow_port], [Rep 0 3 HEXDIG, Ch 58 58, Rep 3 3 h16_colon, ls32, flow_port], [Rep 0 3
        HEXDIG, Ch 58 58, Rep 2 2 h16_colon, ls32, flow_port], [Rep 0 3 HEXDIG, Ch 58 58,
        h16_colon, ls32, flow_port], [Rep 0 3 HEXDIG, Ch 58 58, ls32, flow_port], [Rep 0 3 HEXDIG,
        Cat (Ch 58 58) h16, flow_port], [Cat (Ch 46 46) (Cat dec_octet (Cat (Ch 46 46) (Cat
        dec_octet (Cat (Ch 46 46) dec_octet)))), flow_port], [DIGIT, Cat (Ch 46 46) (Cat dec_octet
        (Cat (Ch 46 46) (Cat dec_octet (Cat (Ch 46 46) dec_octet)))), flow_port], [Rep 0 3 HEXDIG,
        flow_port]], []]])
      else
      ([-128, 48, 58, 59, 65, 71, 95, 96, 97, 103], [[[], [[Rep 0 3 HEXDIG, Ch 58 58, Rep 4 4
        h16_colon, ls32, Ch 95 95], [Rep 0 3 HEXDIG, Ch 58 58, Rep 3 3 h16_colon, ls32, Ch 95 95],
        [Rep 0 3 HEXDIG, Ch 58 58, Rep 2 2 h16_colon, ls32, Ch 95 95], [Rep 0 3 HEXDIG, Ch 58 58,
        h16_colon, ls32, Ch 95 95], [Rep 0 3 HEXDIG, Ch 58 58, ls32, Ch 95 95], [Rep 0 3 HEXDIG,
        Cat (Ch 58 58) h16, Ch 95 95], [Rep 0 3 HEXDIG, Ch 95 95]], [[Rep 0 3 HEXDIG, Ch 58 58,
        Rep 4 4 h16_colon, ls32, flow_port], [Rep 0 3 HEXDIG, Ch 58 58, Rep 3 3 h16_colon, ls32,
        flow_port], [Rep 0 3 HEXDIG, Ch 58 58, Rep 2 2 h16_colon, ls32, flow_port], [Rep 0 3
        HEXDIG, Ch 58 58, h16_colon, ls32, flow_port], [Rep 0 3 HEXDIG, Ch 58 58, ls32,
        flow_port], [Rep 0 3 HEXDIG, Cat (Ch 58 58) h16, flow_port], [Rep 0 3 HEXDIG, flow_port]],
        []]]))"

definition flow_expects_16 :: certificate where
  "flow_expects_16 s =
     (if s = 181 then ([-128, 48, 58, 59, 65, 71, 97, 103], [[[], [[Rep 0 3 HEXDIG, Ch 58 58, Rep
        5 5 h16_colon, ls32, Ch 95 95], [Rep 0 3 HEXDIG, Cat dcolon (Cat (Rep 4 4 h16_colon)
        ls32), Ch 95 95], [Rep 0 3 HEXDIG, Cat dcolon (Cat (Rep 3 3 h16_colon) ls32), Ch 95 95],
        [Rep 0 3 HEXDIG, Ch 58 58, h16, Cat dcolon (Cat (Rep 3 3 h16_colon) ls32), Ch 95 95], [Rep
        0 3 HEXDIG, Cat dcolon (Cat (Rep 2 2 h16_colon) ls32), Ch 95 95], [Rep 0 3 HEXDIG, Ch 58
        58, Rep 0 1 h16_colon, h16, Cat dcolon (Cat (Rep 2 2 h16_colon) ls32), Ch 95 95], [Rep 0 3
        HEXDIG, Cat dcolon (Cat h16_colon ls32), Ch 95 95], [Rep 0 3 HEXDIG, Ch 58 58, Rep 0 2
        h16_colon, h16, Cat dcolon (Cat h16_colon ls32), Ch 95 95], [Rep 0 3 HEXDIG, Cat dcolon
        ls32, Ch 95 95], [Rep 0 3 HEXDIG, Ch 58 58, Rep 0 3 h16_colon, h16, Cat dcolon ls32, Ch 95
        95], [Rep 0 3 HEXDIG, Cat dcolon h16, Ch 95 95], [Rep 0 3 HEXDIG, Ch 58 58, Rep 0 4
        h16_colon, h16, Cat dcolon h16, Ch 95 95], [Rep 0 3 HEXDIG, dcolon, Ch 95 95], [Rep 0 3
        HEXDIG, Ch 58 58, Rep 0 5 h16_colon, h16, dcolon, Ch 95 95]], [[Rep 0 3 HEXDIG, Ch 58 58,
        Rep 5 5 h16_colon, ls32, flow_port], [Rep 0 3 HEXDIG, Cat dcolon (Cat (Rep 4 4 h16_colon)
        ls32), flow_port], [Rep 0 3 HEXDIG, Cat dcolon (Cat (Rep 3 3 h16_colon) ls32), flow_port],
        [Rep 0 3 HEXDIG, Ch 58 58, h16, Cat dcolon (Cat (Rep 3 3 h16_colon) ls32), flow_port],
        [Rep 0 3 HEXDIG, Cat dcolon (Cat (Rep 2 2 h16_colon) ls32), flow_port], [Rep 0 3 HEXDIG,
        Ch 58 58, Rep 0 1 h16_colon, h16, Cat dcolon (Cat (Rep 2 2 h16_colon) ls32), flow_port],
        [Rep 0 3 HEXDIG, Cat dcolon (Cat h16_colon ls32), flow_port], [Rep 0 3 HEXDIG, Ch 58 58,
        Rep 0 2 h16_colon, h16, Cat dcolon (Cat h16_colon ls32), flow_port], [Rep 0 3 HEXDIG, Cat
        dcolon ls32, flow_port], [Rep 0 3 HEXDIG, Ch 58 58, Rep 0 3 h16_colon, h16, Cat dcolon
        ls32, flow_port], [Rep 0 3 HEXDIG, Cat dcolon h16, flow_port], [Rep 0 3 HEXDIG, Ch 58 58,
        Rep 0 4 h16_colon, h16, Cat dcolon h16, flow_port], [Rep 0 3 HEXDIG, dcolon, flow_port],
        [Rep 0 3 HEXDIG, Ch 58 58, Rep 0 5 h16_colon, h16, dcolon, flow_port]], []]])
      else
      if s = 182 then ([-128], [[[], [], [[]], []]])
      else
      if s = 183 then ([-128, 48, 58], [[[], [], [[Rep 0 1 DIGIT]], []], [[], [], [[], [DIGIT]],
        []]])
      else
      if s = 184 then ([-128, 48, 58], [[[], [], [[Rep 0 2 DIGIT]], []], [[], [], [[Rep 0 1
        DIGIT], [Rep 2 2 DIGIT]], []]])
      else
      if s = 185 then ([-128, 48, 58], [[[], [], [[Rep 0 3 DIGIT], [Rep 4 4 DIGIT]], []]])
      else
      if s = 186 then ([-128, 48, 58], [[[], [], [[Rep 0 3 DIGIT]], []], [[], [], [[Rep 0 2
        DIGIT], [Rep 3 3 DIGIT]], []]])
      else
      if s = 187 then ([-128, 48, 53, 54, 58], [[[], [], [[Rep 0 3 DIGIT], [Cat (Ch 48 52) (Rep 3
        3 DIGIT)], [Cat (Ch 53 53) (Cat (Ch 48 52) (Rep 2 2 DIGIT))], [Cat (Ch 53 53) (Cat (Ch 53
        53) (Cat (Ch 48 50) DIGIT))], [Cat (Ch 53 53) (Cat (Ch 53 53) (Cat (Ch 51 51) (Ch 48
        53)))]], []]])
      else
      if s = 188 then ([-128, 48, 53, 54, 58], [[[], [], [[Rep 0 2 DIGIT], [Cat (Ch 48 52) (Rep 2
        2 DIGIT)], [Cat (Ch 53 53) (Cat (Ch 48 50) DIGIT)], [Cat (Ch 53 53) (Cat (Ch 51 51) (Ch 48
        53))]], []]])
      else
      if s = 189 then ([-128, 48, 51, 52, 58], [[[], [], [[Rep 0 1 DIGIT], [Cat (Ch 48 50) DIGIT],
        [Cat (Ch 51 51) (Ch 48 53)]], []]])
      else
      ([-128, 48, 54], [[[], [], [[], [Ch 48 53]], []]]))"

definition flow_expects :: certificate where
  "flow_expects s =
     (if s \<le> 12 then flow_expects_1 s else
      if s \<le> 24 then flow_expects_2 s else
      if s \<le> 36 then flow_expects_3 s else
      if s \<le> 48 then flow_expects_4 s else
      if s \<le> 60 then flow_expects_5 s else
      if s \<le> 72 then flow_expects_6 s else
      if s \<le> 84 then flow_expects_7 s else
      if s \<le> 96 then flow_expects_8 s else
      if s \<le> 108 then flow_expects_9 s else
      if s \<le> 120 then flow_expects_10 s else
      if s \<le> 132 then flow_expects_11 s else
      if s \<le> 144 then flow_expects_12 s else
      if s \<le> 156 then flow_expects_13 s else
      if s \<le> 168 then flow_expects_14 s else
      if s \<le> 180 then flow_expects_15 s else
      flow_expects_16 s)"

lemmas flow_expects_defs =
  flow_expects_def
  flow_expects_1_def flow_expects_2_def flow_expects_3_def flow_expects_4_def flow_expects_5_def
  flow_expects_6_def flow_expects_7_def flow_expects_8_def flow_expects_9_def flow_expects_10_def
  flow_expects_11_def flow_expects_12_def flow_expects_13_def flow_expects_14_def
  flow_expects_15_def flow_expects_16_def

lemmas [cert_eval] =
  flow_blocks_case flow_blocks_trans flow_expects_defs flow_acts_ok_def

lemma flow_range_1: "[1..12] = [1, 2, 3, 4, 5, 6, 7, 8, 9, 10, 11, 12]"
  by (simp add: upto_rec1)

lemma flow_rows_1: "list_all (state_ok flow_blocks flow_expects 190 flow_acts_ok) [1..12]"
  unfolding flow_range_1 by (simp only: cert_eval cong: cert_cong)

lemma flow_range_2: "[13..24] = [13, 14, 15, 16, 17, 18, 19, 20, 21, 22, 23, 24]"
  by (simp add: upto_rec1)

lemma flow_rows_2: "list_all (state_ok flow_blocks flow_expects 190 flow_acts_ok) [13..24]"
  unfolding flow_range_2 by (simp only: cert_eval cong: cert_cong)

lemma flow_range_3: "[25..36] = [25, 26, 27, 28, 29, 30, 31, 32, 33, 34, 35, 36]"
  by (simp add: upto_rec1)

lemma flow_rows_3: "list_all (state_ok flow_blocks flow_expects 190 flow_acts_ok) [25..36]"
  unfolding flow_range_3 by (simp only: cert_eval cong: cert_cong)

lemma flow_range_4: "[37..48] = [37, 38, 39, 40, 41, 42, 43, 44, 45, 46, 47, 48]"
  by (simp add: upto_rec1)

lemma flow_rows_4: "list_all (state_ok flow_blocks flow_expects 190 flow_acts_ok) [37..48]"
  unfolding flow_range_4 by (simp only: cert_eval cong: cert_cong)

lemma flow_range_5: "[49..60] = [49, 50, 51, 52, 53, 54, 55, 56, 57, 58, 59, 60]"
  by (simp add: upto_rec1)

lemma flow_rows_5: "list_all (state_ok flow_blocks flow_expects 190 flow_acts_ok) [49..60]"
  unfolding flow_range_5 by (simp only: cert_eval cong: cert_cong)

lemma flow_range_6: "[61..72] = [61, 62, 63, 64, 65, 66, 67, 68, 69, 70, 71, 72]"
  by (simp add: upto_rec1)

lemma flow_rows_6: "list_all (state_ok flow_blocks flow_expects 190 flow_acts_ok) [61..72]"
  unfolding flow_range_6 by (simp only: cert_eval cong: cert_cong)

lemma flow_range_7: "[73..84] = [73, 74, 75, 76, 77, 78, 79, 80, 81, 82, 83, 84]"
  by (simp add: upto_rec1)

lemma flow_rows_7: "list_all (state_ok flow_blocks flow_expects 190 flow_acts_ok) [73..84]"
  unfolding flow_range_7 by (simp only: cert_eval cong: cert_cong)

lemma flow_range_8: "[85..96] = [85, 86, 87, 88, 89, 90, 91, 92, 93, 94, 95, 96]"
  by (simp add: upto_rec1)

lemma flow_rows_8: "list_all (state_ok flow_blocks flow_expects 190 flow_acts_ok) [85..96]"
  unfolding flow_range_8 by (simp only: cert_eval cong: cert_cong)

lemma flow_range_9: "[97..108] = [97, 98, 99, 100, 101, 102, 103, 104, 105, 106, 107, 108]"
  by (simp add: upto_rec1)

lemma flow_rows_9: "list_all (state_ok flow_blocks flow_expects 190 flow_acts_ok) [97..108]"
  unfolding flow_range_9 by (simp only: cert_eval cong: cert_cong)

lemma flow_range_10: "[109..120] = [109, 110, 111, 112, 113, 114, 115, 116, 117, 118, 119, 120]"
  by (simp add: upto_rec1)

lemma flow_rows_10: "list_all (state_ok flow_blocks flow_expects 190 flow_acts_ok) [109..120]"
  unfolding flow_range_10 by (simp only: cert_eval cong: cert_cong)

lemma flow_range_11: "[121..132] = [121, 122, 123, 124, 125, 126, 127, 128, 129, 130, 131, 132]"
  by (simp add: upto_rec1)

lemma flow_rows_11: "list_all (state_ok flow_blocks flow_expects 190 flow_acts_ok) [121..132]"
  unfolding flow_range_11 by (simp only: cert_eval cong: cert_cong)

lemma flow_range_12: "[133..144] = [133, 134, 135, 136, 137, 138, 139, 140, 141, 142, 143, 144]"
  by (simp add: upto_rec1)

lemma flow_rows_12: "list_all (state_ok flow_blocks flow_expects 190 flow_acts_ok) [133..144]"
  unfolding flow_range_12 by (simp only: cert_eval cong: cert_cong)

lemma flow_range_13: "[145..156] = [145, 146, 147, 148, 149, 150, 151, 152, 153, 154, 155, 156]"
  by (simp add: upto_rec1)

lemma flow_rows_13: "list_all (state_ok flow_blocks flow_expects 190 flow_acts_ok) [145..156]"
  unfolding flow_range_13 by (simp only: cert_eval cong: cert_cong)

lemma flow_range_14: "[157..168] = [157, 158, 159, 160, 161, 162, 163, 164, 165, 166, 167, 168]"
  by (simp add: upto_rec1)

lemma flow_rows_14: "list_all (state_ok flow_blocks flow_expects 190 flow_acts_ok) [157..168]"
  unfolding flow_range_14 by (simp only: cert_eval cong: cert_cong)

lemma flow_range_15: "[169..180] = [169, 170, 171, 172, 173, 174, 175, 176, 177, 178, 179, 180]"
  by (simp add: upto_rec1)

lemma flow_rows_15: "list_all (state_ok flow_blocks flow_expects 190 flow_acts_ok) [169..180]"
  unfolding flow_range_15 by (simp only: cert_eval cong: cert_cong)

lemma flow_range_16: "[181..190] = [181, 182, 183, 184, 185, 186, 187, 188, 189, 190]"
  by (simp add: upto_rec1)

lemma flow_rows_16: "list_all (state_ok flow_blocks flow_expects 190 flow_acts_ok) [181..190]"
  unfolding flow_range_16 by (simp only: cert_eval cong: cert_cong)

lemmas flow_rows =
  flow_rows_1 flow_rows_2 flow_rows_3 flow_rows_4 flow_rows_5 flow_rows_6 flow_rows_7 flow_rows_8
  flow_rows_9 flow_rows_10 flow_rows_11 flow_rows_12 flow_rows_13 flow_rows_14 flow_rows_15
  flow_rows_16

lemma flow_rows_ok: "list_all (state_ok flow_blocks flow_expects 190 flow_acts_ok) [1..190]"
  by ((rule list_all_upto_split, rule flow_rows, simp)+, simp)

end
