(* ===== verification/Outbound_Utils.thy ===== *)
theory Outbound_Utils
  imports Flow_Lines Outbound_Certificate
begin

text \<open>
  \<open>outbound_udp_flow_token_parser_execute\<close> of ext/utils/outbound_utils.rl and
  \<open>Utils_parser_outbound_udp_flow_token\<close> of ext/utils/utils_ruby.c: the address and the port in a
  flow token such as \<open>1.2.3.4_5060\<close>.
\<close>

definition outbound_udp_flow_token_parser_execute :: "string \<Rightarrow> flow_fields" where
  "outbound_udp_flow_token_parser_execute str =
     (case rgl_exec flow_blocks flow_act 1 0 str (flow_init, False) of
        (cs, p, token, finished) \<Rightarrow>
          if finished \<and> length str = p then token\<lparr>valid := 1\<rparr> else token)"

text \<open>A number \<open>str_to_int\<close> cannot hold is undefined, like a read behind a buffer.\<close>

fun Utils_parser_outbound_udp_flow_token :: "ruby_value \<Rightarrow> outcome" where
  "Utils_parser_outbound_udp_flow_token (Str str) =
     (let t = outbound_udp_flow_token_parser_execute str in
      if valid t = 0 then Inr Qfalse
      else
        let ip = take (ip_len t) (drop (ip_s t) str);
            ip_type = (if ip_type t = Some ip_type_ipv4' then Sym ''ipv4'' else Sym ''ipv6'')
        in (case str_to_int (take (port_len t) (drop (port_s t) str)) of
              None \<Rightarrow> Inl OutOfBounds
            | Some n \<Rightarrow> Inr (Ary [ip_type, Str ip, Fix n])))"
| "Utils_parser_outbound_udp_flow_token v = Inl TypeError"

interpretation flow: certified_automaton flow_blocks 1 flow_expects 190 flow_acts_ok flow_grammars
proof unfold_locales
  show "list_all rx_live flow_grammars"
    by (simp add: flow_grammars_def flow_grammar_defs ip_grammar_defs Lit_codes)
  show "map (\<lambda>g. [[g]]) flow_grammars \<in> set (snd (flow_expects 1))"
    by (simp add: flow_grammars_def flow_expects_def flow_expects_1_def)
  show "list_all (state_ok flow_blocks flow_expects 190 flow_acts_ok) [1..190]"
    by (rule flow_rows_ok)
qed simp_all

subsection \<open>The words of the grammars\<close>

lemma length_flow_grammars [simp]: "length flow_grammars = 4"
  by (simp add: flow_grammars_def)

lemma flow_words:
  "w \<in> lang (flow_grammars ! 0) \<longleftrightarrow> (\<exists>a. w = a @ ''_'' \<and> a \<in> lang IPv4address)"
  "w \<in> lang (flow_grammars ! Suc 0) \<longleftrightarrow> (\<exists>a. w = a @ ''_'' \<and> a \<in> lang IPv6address)"
  "w \<in> lang (flow_grammars ! 2) \<longleftrightarrow> (\<exists>a q. w = a @ ''_'' @ q \<and> a \<in> lang IPaddress \<and> port_text q)"
  "w \<in> lang (flow_grammars ! 3) \<longleftrightarrow> w = []"
  by (auto simp: flow_grammars_def flow_port_def flow_separators lang_port conc_def
      simp del: lang.simps(2) simp flip: lang_port)

lemma flow_actions:
  assumes "rgl_run flow_blocks 1 w \<noteq> None" and "i < length w"
  shows "rgl_acts flow_blocks 1 w i =
    (if i = 0 then [Start_ip] else []) @
    (if take (Suc i) w \<in> lang (flow_grammars ! 0) then [Is_ipv4, End_ip] else []) @
    (if take (Suc i) w \<in> lang (flow_grammars ! Suc 0) then [Is_ipv6, End_ip] else []) @
    (if take i w \<in> lang (flow_grammars ! 0) \<union> lang (flow_grammars ! Suc 0) then [Start_port] else []) @
    (if take (Suc i) w \<in> lang (flow_grammars ! 2) then [End_port, Finish] else [])"
proof -
  from assms(1) obtain t where "rgl_run flow_blocks 1 w = Some t" by blast
  from rgl_run_prefix [OF this assms(2)] obtain u as r where
    u: "rgl_run flow_blocks 1 (take i w) = Some u" "rgl_step flow_blocks u (schar (w ! i)) = Some (as, r)" .
  from flow.run_step_actions [OF u] obtain X Y where X: "flow.follows (take i w) X"
    and Y: "flow.follows (take i w @ [w ! i]) Y" and ok: "flow_acts_ok as X Y" by blast
  have lX: "length X = 4" and lY: "length Y = 4" using X Y by (simp_all add: flow.follows_def)
  obtain x0 x1 x2 x3 where Xs: "X = [x0, x1, x2, x3]"
    using lX by (auto simp: length_Suc_conv eval_nat_numeral)
  obtain y0 y1 y2 y3 where Ys: "Y = [y0, y1, y2, y3]"
    using lY by (auto simp: length_Suc_conv eval_nat_numeral)
  note ax = flow.follows_accepts [OF X] and ay = flow.follows_accepts [OF Y, folded nth_take_Suc [OF assms(2)]]
  from ax [of 0] ax [of "Suc 0"] ax [of 3] ay [of 0] ay [of "Suc 0"] ay [of 2]
  have "stacks_null x0 \<longleftrightarrow> take i w \<in> lang (flow_grammars ! 0)"
    "stacks_null x1 \<longleftrightarrow> take i w \<in> lang (flow_grammars ! Suc 0)" "stacks_null x3 \<longleftrightarrow> i = 0"
    "stacks_null y0 \<longleftrightarrow> take (Suc i) w \<in> lang (flow_grammars ! 0)"
    "stacks_null y1 \<longleftrightarrow> take (Suc i) w \<in> lang (flow_grammars ! Suc 0)"
    "stacks_null y2 \<longleftrightarrow> take (Suc i) w \<in> lang (flow_grammars ! 2)"
    using assms(2) by (auto simp: Xs Ys flow_words(4))
  then have "as = (if i = 0 then [Start_ip] else []) @
    (if take (Suc i) w \<in> lang (flow_grammars ! 0) then [Is_ipv4, End_ip] else []) @
    (if take (Suc i) w \<in> lang (flow_grammars ! Suc 0) then [Is_ipv6, End_ip] else []) @
    (if take i w \<in> lang (flow_grammars ! 0) \<union> lang (flow_grammars ! Suc 0) then [Start_port] else []) @
    (if take (Suc i) w \<in> lang (flow_grammars ! 2) then [End_port, Finish] else [])"
    using ok by (simp add: flow_acts_ok_def Xs Ys)
  then show ?thesis by (simp add: rgl_acts_def u)
qed

subsection \<open>Tokens\<close>

lemma token_address_prefix:
  assumes "a \<in> lang IPaddress" and "n \<le> length (a @ ''_'' @ q)" and "\<And>x. R x \<Longrightarrow> x \<in> lang IPaddress"
  shows "(\<exists>x. take n (a @ ''_'' @ q) = x @ ''_'' \<and> R x) \<longleftrightarrow> n = Suc (length a) \<and> R a"
proof
  assume "\<exists>x. take n (a @ ''_'' @ q) = x @ ''_'' \<and> R x"
  then obtain x where x: "take n (a @ ''_'' @ q) = x @ ''_''" "R x" by blast
  have "a @ CHR ''_'' # q = x @ CHR ''_'' # drop n (a @ ''_'' @ q)"
    using append_take_drop_id [of n "a @ ''_'' @ q"] unfolding x(1) by simp
  from append_sep_eq [OF this] no_separator(1) assms(1,3) x(2) have "a = x" by blast
  moreover have "n = length (x @ ''_'')" using assms(2) unfolding x(1) [symmetric] length_take by linarith
  ultimately show "n = Suc (length a) \<and> R a" using x(2) by simp
qed auto

lemma flow_token_end:
  assumes "a \<in> lang IPaddress" and "n \<le> length (a @ ''_'' @ q)"
  shows "take n (a @ ''_'' @ q) \<in> lang (flow_grammars ! 2) \<longleftrightarrow>
    Suc (length a) < n \<and> port_text (take (n - Suc (length a)) q)"
proof
  assume "take n (a @ ''_'' @ q) \<in> lang (flow_grammars ! 2)"
  then obtain x r where x: "take n (a @ ''_'' @ q) = x @ ''_'' @ r" "x \<in> lang IPaddress" "port_text r"
    by (auto simp: flow_words)
  have "a @ CHR ''_'' # q = x @ CHR ''_'' # r @ drop n (a @ ''_'' @ q)"
    using append_take_drop_id [of n "a @ ''_'' @ q"] unfolding x(1) by simp
  from append_sep_eq [OF this] no_separator(1) assms(1) x(2) have "a = x" by blast
  moreover have "n = length (x @ ''_'' @ r)"
    using assms(2) unfolding x(1) [symmetric] length_take by linarith
  ultimately have "n = Suc (length a) + length r" by simp
  then show "Suc (length a) < n \<and> port_text (take (n - Suc (length a)) q)"
    using x \<open>a = x\<close> port_text_nonempty [OF x(3)] by simp
next
  assume "Suc (length a) < n \<and> port_text (take (n - Suc (length a)) q)"
  moreover from this have "take n (a @ ''_'' @ q) = a @ ''_'' @ take (n - Suc (length a)) q"
    by (simp add: take_Cons')
  ultimately show "take n (a @ ''_'' @ q) \<in> lang (flow_grammars ! 2)"
    using assms(1) by (auto simp: flow_words)
qed

lemma flow_token_run:
  assumes "a \<in> lang IPaddress" and "port_text q"
  shows "rgl_run flow_blocks 1 (a @ ''_'' @ q) \<noteq> None"
proof -
  have "(a @ ''_'' @ q) @ [] \<in> lang (flow_grammars ! 2)" using assms by (auto simp: flow_words)
  then show ?thesis unfolding flow.run_viable length_flow_grammars by (metis numeral_less_iff semiring_norm(76,78))
qed

lemma flow_token_data:
  assumes "a \<in> lang IPaddress" and "port_text q"
  shows "flow_data flow_blocks 1 (a @ ''_'' @ q) =
    (\<lparr>valid = 0, ip_type = Some (address_type a), ip_s = 0, ip_len = length a,
      port_s = Suc (length a), port_len = length q\<rparr>, True)"
proof -
  let ?w = "a @ ''_'' @ q"
  let ?E = "\<lambda>i. take (Suc i) ?w \<in> lang (flow_grammars ! 2) \<and> i < length ?w"
  note pre = token_address_prefix [OF assms(1)] and fin = flow_token_end [OF assms(1)]
  have acts: "rgl_acts flow_blocks 1 ?w i = line_acts 0 (length a) (Suc (length a)) (address_type a) ?E ?E i"
    if i: "i < length ?w" for i
  proof -
    have "take (Suc i) ?w \<in> lang (flow_grammars ! 0) \<longleftrightarrow> i = length a \<and> address_type a = ip_type_ipv4'"
      using i pre [of "Suc i" q "\<lambda>x. x \<in> lang IPv4address"]
      by (simp add: flow_words IPaddress_cases address_type_def)
    moreover have "take (Suc i) ?w \<in> lang (flow_grammars ! Suc 0) \<longleftrightarrow> i = length a \<and> address_type a = ip_type_ipv6'"
      using i pre [of "Suc i" q "\<lambda>x. x \<in> lang IPv6address"] assms(1) IPv4_not_IPv6
      by (auto simp: flow_words IPaddress_cases address_type_def)
    moreover have "take i ?w \<in> lang (flow_grammars ! 0) \<union> lang (flow_grammars ! Suc 0) \<longleftrightarrow> i = Suc (length a)"
      using i pre [of i q "\<lambda>x. x \<in> lang IPaddress"] assms(1)
      by (auto simp: flow_words IPaddress_cases)
    ultimately show ?thesis
      unfolding flow_actions [OF flow_token_run [OF assms] i] using i by (simp add: line_acts_def)
  qed
  have q: "0 < length q" by (rule port_text_nonempty [OF assms(2)])
  have E: "?E i \<Longrightarrow> Suc (length a) \<le> i" "length ?w \<le> i \<Longrightarrow> \<not> ?E i" for i
    using fin [of "Suc i" q] by auto
  have last: "?E (length ?w - 1)"
    using fin [of "length ?w" q] q assms(2) by simp
  have "flow_data flow_blocks 1 ?w =
    flow_run (line_acts 0 (length a) (Suc (length a)) (address_type a) ?E ?E) (length ?w)"
    unfolding flow_data_def by (rule flow_run_cong) (rule acts)
  also have "\<dots> = (\<lparr>valid = 0, ip_type = Some (address_type a), ip_s = 0, ip_len = length a - 0,
      port_s = Suc (length a), port_len = length ?w - Suc (length a)\<rparr>, \<exists>i < length ?w. ?E i)"
    by (rule flow_run_line) (use IPaddress_nonempty [OF assms(1)] q E last in \<open>auto simp del: append.simps\<close>)
  also have "(\<exists>i < length ?w. ?E i) = True" using last by auto
  finally show ?thesis by simp
qed

text \<open>A finished machine that can read on is still inside one token.\<close>

lemma flow_token_finished:
  assumes "u \<in> lang (flow_grammars ! 2)" and "(u @ r) @ v \<in> lang (flow_grammars ! k)" and "k < 4"
  shows "u @ r \<in> lang (flow_grammars ! 2)"
proof -
  from assms(1) obtain a q where u: "u = a @ ''_'' @ q" "a \<in> lang IPaddress" "port_text q"
    by (auto simp: flow_words)
  have "k = 0 \<or> k = Suc 0 \<or> k = 2 \<or> k = 3" using assms(3) by auto
  then obtain b t where b: "(u @ r) @ v = b @ ''_'' @ t" "b \<in> lang IPaddress" "t = [] \<or> port_text t"
    using assms(2) u(1) by (fastforce simp: flow_words IPaddress_cases)
  from u(1) b(1) have "a @ CHR ''_'' # q @ r @ v = b @ CHR ''_'' # t" by simp
  from append_sep_eq [OF this] no_separator(1) u(2) b(2) have "q @ r @ v = t" by blast
  with b(3) port_text_nonempty [OF u(3)] have "port_text (q @ r @ v)" by auto
  from port_between [OF u(3) this] u(1,2) show ?thesis by (auto simp: flow_words)
qed

definition flow_token :: "string \<Rightarrow> string \<Rightarrow> string \<Rightarrow> bool" where
  "flow_token str a q \<longleftrightarrow> str = a @ ''_'' @ q \<and> a \<in> lang IPaddress \<and> port_text q"

lemma flow_execute_token:
  assumes "flow_token str a q"
  shows "outbound_udp_flow_token_parser_execute str =
    \<lparr>valid = 1, ip_type = Some (address_type a), ip_s = 0, ip_len = length a,
     port_s = Suc (length a), port_len = length q\<rparr>"
proof -
  have t: "str = a @ ''_'' @ q" "a \<in> lang IPaddress" "port_text q"
    using assms by (simp_all add: flow_token_def)
  have "snd (rgl_exec flow_blocks flow_act 1 0 (str @ []) (flow_init, False)) =
    (length str, flow_data flow_blocks 1 str)"
    unfolding t(1) by (rule flow_exec_stops [OF flow_token_run [OF t(2,3)]]) simp
  also have "flow_data flow_blocks 1 str = (\<lparr>valid = 0, ip_type = Some (address_type a), ip_s = 0,
    ip_len = length a, port_s = Suc (length a), port_len = length q\<rparr>, True)"
    unfolding t(1) by (rule flow_token_data [OF t(2,3)])
  finally show ?thesis
    by (auto simp: outbound_udp_flow_token_parser_execute_def split: prod.splits)
qed

lemma flow_execute_valid:
  "valid (outbound_udp_flow_token_parser_execute str) = (if \<exists>a q. flow_token str a q then 1 else 0)"
proof (cases "\<exists>a q. flow_token str a q")
  case True
  then show ?thesis using flow_execute_token by fastforce
next
  case False
  obtain w v where w: "str = w @ v" "rgl_run flow_blocks 1 w \<noteq> None"
    "v = [] \<or> rgl_run flow_blocks 1 (w @ [hd v]) = None"
    using rgl_run_longest by blast
  obtain t f where tf: "flow_data flow_blocks 1 w = (t, f)" by (cases "flow_data flow_blocks 1 w")
  have "valid t = 0"
    using flow_data_valid [of flow_blocks 1 w] by (simp add: tf)
  moreover have "\<not> (f \<and> v = [])"
  proof
    assume "f \<and> v = []"
    then have fin: "snd (flow_data flow_blocks 1 w)" and v: "v = []" by (simp_all add: tf)
    from fin obtain i where i: "i < length w" "Finish \<in> set (rgl_acts flow_blocks 1 w i)"
      by (auto simp: flow_data_def flow_run_finished)
    then have "take (Suc i) w \<in> lang (flow_grammars ! 2)"
      by (auto simp: flow_actions [OF w(2) i(1)] split: if_splits)
    moreover obtain k r where "k < 4" "w @ r \<in> lang (flow_grammars ! k)"
      using w(2) unfolding flow.run_viable by auto
    ultimately have "w \<in> lang (flow_grammars ! 2)"
      using flow_token_finished [of "take (Suc i) w" "drop (Suc i) w" r k] by simp
    with False show False by (auto simp: w(1) v flow_words flow_token_def)
  qed
  moreover have "snd (rgl_exec flow_blocks flow_act 1 0 str (flow_init, False)) = (length w, t, f)"
    unfolding w(1) tf [symmetric] by (rule flow_exec_stops [OF w(2,3)])
  ultimately show ?thesis
    using False by (auto simp: outbound_udp_flow_token_parser_execute_def w(1) split: prod.splits)
qed

text \<open>The parts of a token: what is before the first underscore and what is after it.\<close>

definition token_address :: "string \<Rightarrow> string" where
  "token_address str = takeWhile (\<lambda>c. c \<noteq> CHR ''_'') str"

definition token_port :: "string \<Rightarrow> string" where
  "token_port str = tl (dropWhile (\<lambda>c. c \<noteq> CHR ''_'') str)"

lemma flow_token_parts:
  assumes "flow_token str a q"
  shows "token_address str = a" "token_port str = q"
proof -
  have str: "str = a @ CHR ''_'' # q" and a: "x \<in> set a \<Longrightarrow> x \<noteq> CHR ''_''" for x
    using assms no_separator(1) by (auto simp: flow_token_def)
  show "token_address str = a" "token_port str = q"
    unfolding token_address_def token_port_def str
    by (simp_all add: takeWhile_append2 dropWhile_append2 a)
qed

lemma flow_token_iff: "(\<exists>a q. flow_token str a q) \<longleftrightarrow> flow_token str (token_address str) (token_port str)"
  using flow_token_parts by blast

text \<open>
  C18.  The generated scanner accepts exactly the tokens that are an IP address of the grammar, an
  underscore and a port from 1 to 65535 in at most five digits; the struct then holds the family
  of the address and the exact positions of the address and of the port.
\<close>

theorem outbound_udp_flow_token_parser_execute_eq:
  "(if flow_token str (token_address str) (token_port str)
    then outbound_udp_flow_token_parser_execute str =
      \<lparr>valid = 1, ip_type = Some (address_type (token_address str)),
       ip_s = 0, ip_len = length (token_address str),
       port_s = length (token_address str) + 1, port_len = length (token_port str)\<rparr>
    else valid (outbound_udp_flow_token_parser_execute str) = 0)"
  using flow_execute_valid [of str] flow_execute_token by (simp add: flow_token_iff)

subsection \<open>The Ruby method\<close>

lemma Utils_parser_token:
  assumes "flow_token str a q"
  shows "Utils_parser_outbound_udp_flow_token (Str str) =
    Inr (Ary [address_symbol a, Str a, Fix (int (dec_val q))])"
proof -
  have t: "str = a @ ''_'' @ q" "port_text q" using assms by (simp_all add: flow_token_def)
  have "take (length q) (drop (Suc (length a)) str) = q" "take (length a) (drop 0 str) = a"
    by (simp_all add: t(1))
  then show ?thesis
    using port_str_to_int [OF t(2)]
    by (simp add: flow_execute_token [OF assms] Let_def address_symbol_def address_type_def)
qed

text \<open>
  C20.  \<open>parse_outbound_udp_flow_token\<close> gives back the parts a token was made of: the family of the
  address, the address and the number of the port, without overflow.  It is false for every
  String that is no token.
\<close>

theorem Utils_parser_outbound_udp_flow_token_eq:
  "Utils_parser_outbound_udp_flow_token (Str str) =
     (if flow_token str (token_address str) (token_port str)
      then Inr (Ary [address_symbol (token_address str), Str (token_address str),
        Fix (int (dec_val (token_port str)))])
      else Inr Qfalse)"
proof (cases "flow_token str (token_address str) (token_port str)")
  case True
  then show ?thesis using Utils_parser_token [OF True] by (simp del: Utils_parser_outbound_udp_flow_token.simps)
next
  case False
  then show ?thesis using flow_execute_valid [of str] by (simp add: Let_def flow_token_iff)
qed

end
