(* ===== verification/Haproxy_Automaton.thy ===== *)
theory Haproxy_Automaton
  imports Flow_Grammar
begin

text \<open>
  The scanner of ext/utils/haproxy_protocol.c (the \<open>-G2\<close> output for machine
  \<open>utils_haproxy_protocol_parser\<close>): its blocks in the order of the file, cut into pieces of at
  most 150 source lines, and the lookup rules of each piece.
\<close>


definition ha_blocks_1 :: "flow_action rgl_block list" where
  "ha_blocks_1 =
    [Case 1 [(80, St 2)] [],
     Case 2 [(82, St 3)] [],
     Case 3 [(79, St 4)] [],
     Case 4 [(88, St 5)] [],
     Case 5 [(89, St 6)] [],
     Case 6 [(32, St 7)] [],
     Case 7 [(84, St 8)] [],
     Case 8 [(67, St 9)] [],
     Case 9 [(80, St 10)] [],
     Case 10 [(52, St 11), (54, St 11)] [],
     Case 11 [(32, St 12)] [],
     Case 12 [(48, Tr 12), (49, Tr 13), (50, Tr 14), (58, Tr 16)] [(51, 57, Tr 15), (97, 102,
       Tr 17), (65, 70, Tr 17)],
     Trans 12 [Start_ip] 13,
     Case 13 [(46, St 14), (58, St 221)] [(48, 57, St 218), (97, 102, St 218), (65, 70, St 218)],
     Case 14 [(48, St 15), (49, St 214), (50, St 216)] [(51, 57, St 215)],
     Case 15 [(46, St 16)] []]"

definition ha_blocks_2 :: "flow_action rgl_block list" where
  "ha_blocks_2 =
    [Case 16 [(48, St 17), (49, St 210), (50, St 212)] [(51, 57, St 211)],
     Case 17 [(46, St 18)] [],
     Case 18 [(48, St 19), (49, St 206), (50, St 208)] [(51, 57, St 207)],
     Case 19 [(32, Tr 35)] [],
     Trans 35 [Is_ipv4, End_ip] 20,
     Trans 281 [Is_ipv6, End_ip] 20,
     Case 20 [(48, St 21), (49, St 183), (50, St 186), (58, St 190)] [(51, 57, St 189), (97, 102,
       St 205), (65, 70, St 205)],
     Case 21 [(46, St 22), (58, St 70)] [(48, 57, St 67), (97, 102, St 67), (65, 70, St 67)],
     Case 22 [(48, St 23), (49, St 63), (50, St 65)] [(51, 57, St 64)],
     Case 23 [(46, St 24)] [],
     Case 24 [(48, St 25), (49, St 59), (50, St 61)] [(51, 57, St 60)],
     Case 25 [(46, St 26)] [],
     Case 26 [(48, St 27), (49, St 55), (50, St 57)] [(51, 57, St 56)]]"

definition ha_blocks_3 :: "flow_action rgl_block list" where
  "ha_blocks_3 =
    [Case 27 [(32, St 28)] [],
     Case 28 [(48, Tr 60), (54, Tr 62)] [(55, 57, Tr 63), (49, 53, Tr 61)],
     Trans 60 [Start_port] 29,
     Case 29 [(48, St 30)] [(49, 57, Tr 65)],
     Case 30 [(48, St 31)] [(49, 57, Tr 67)],
     Case 31 [] [(49, 57, Tr 68)],
     Trans 68 [End_port] 32,
     Case 32 [(32, St 33)] [],
     Case 33 [(48, St 34), (54, St 43)] [(55, 57, St 42), (49, 53, St 41)],
     Case 34 [(48, St 35)] [(49, 57, St 40)],
     Case 35 [(48, St 36)] [(49, 57, St 39)],
     Case 36 [] [(49, 57, St 37)],
     Case 37 [(13, St 38)] [],
     Case 38 [(10, Tr 80)] [],
     Trans 80 [Finish] 375,
     Case 375 [] [],
     Case 39 [(13, St 38)] [(48, 57, St 37)]]"

definition ha_blocks_4 :: "flow_action rgl_block list" where
  "ha_blocks_4 =
    [Case 40 [(13, St 38)] [(48, 57, St 39)],
     Case 41 [(13, St 38)] [(48, 57, St 42)],
     Case 42 [(13, St 38)] [(48, 57, St 40)],
     Case 43 [(13, St 38), (53, St 44)] [(54, 57, St 40), (48, 52, St 42)],
     Case 44 [(13, St 38), (53, St 45)] [(54, 57, St 39), (48, 52, St 40)],
     Case 45 [(13, St 38), (51, St 46)] [(52, 57, St 37), (48, 50, St 39)],
     Case 46 [(13, St 38)] [(48, 53, St 37)],
     Trans 67 [End_port] 47,
     Case 47 [(32, St 33)] [(48, 57, Tr 68)],
     Trans 65 [End_port] 48,
     Case 48 [(32, St 33)] [(48, 57, Tr 67)],
     Trans 61 [Start_port, End_port] 49,
     Case 49 [(32, St 33)] [(48, 57, Tr 84)],
     Trans 63 [Start_port, End_port] 50,
     Trans 84 [End_port] 50]"

definition ha_blocks_5 :: "flow_action rgl_block list" where
  "ha_blocks_5 =
    [Case 50 [(32, St 33)] [(48, 57, Tr 65)],
     Trans 62 [Start_port, End_port] 51,
     Case 51 [(32, St 33), (53, Tr 85)] [(54, 57, Tr 65), (48, 52, Tr 84)],
     Trans 85 [End_port] 52,
     Case 52 [(32, St 33), (53, Tr 86)] [(54, 57, Tr 67), (48, 52, Tr 65)],
     Trans 86 [End_port] 53,
     Case 53 [(32, St 33), (51, Tr 87)] [(52, 57, Tr 68), (48, 50, Tr 67)],
     Trans 87 [End_port] 54,
     Case 54 [(32, St 33)] [(48, 53, Tr 68)],
     Case 55 [(32, St 28)] [(48, 57, St 56)],
     Case 56 [(32, St 28)] [(48, 57, St 27)],
     Case 57 [(32, St 28), (53, St 58)] [(54, 57, St 27), (48, 52, St 56)],
     Case 58 [(32, St 28)] [(48, 53, St 27)],
     Case 59 [(46, St 26)] [(48, 57, St 60)]]"

definition ha_blocks_6 :: "flow_action rgl_block list" where
  "ha_blocks_6 =
    [Case 60 [(46, St 26)] [(48, 57, St 25)],
     Case 61 [(46, St 26), (53, St 62)] [(54, 57, St 25), (48, 52, St 60)],
     Case 62 [(46, St 26)] [(48, 53, St 25)],
     Case 63 [(46, St 24)] [(48, 57, St 64)],
     Case 64 [(46, St 24)] [(48, 57, St 23)],
     Case 65 [(46, St 24), (53, St 66)] [(54, 57, St 23), (48, 52, St 64)],
     Case 66 [(46, St 24)] [(48, 53, St 23)],
     Case 67 [(58, St 70)] [(48, 57, St 68), (97, 102, St 68), (65, 70, St 68)],
     Case 68 [(58, St 70)] [(48, 57, St 69), (97, 102, St 69), (65, 70, St 69)],
     Case 69 [(58, St 70)] [],
     Case 70 [(58, St 169)] [(48, 57, St 71), (97, 102, St 71), (65, 70, St 71)],
     Case 71 [(58, St 75)] [(48, 57, St 72), (97, 102, St 72), (65, 70, St 72)]]"

definition ha_blocks_7 :: "flow_action rgl_block list" where
  "ha_blocks_7 =
    [Case 72 [(58, St 75)] [(48, 57, St 73), (97, 102, St 73), (65, 70, St 73)],
     Case 73 [(58, St 75)] [(48, 57, St 74), (97, 102, St 74), (65, 70, St 74)],
     Case 74 [(58, St 75)] [],
     Case 75 [(58, St 155)] [(48, 57, St 76), (97, 102, St 76), (65, 70, St 76)],
     Case 76 [(58, St 80)] [(48, 57, St 77), (97, 102, St 77), (65, 70, St 77)],
     Case 77 [(58, St 80)] [(48, 57, St 78), (97, 102, St 78), (65, 70, St 78)],
     Case 78 [(58, St 80)] [(48, 57, St 79), (97, 102, St 79), (65, 70, St 79)],
     Case 79 [(58, St 80)] [],
     Case 80 [(58, St 141)] [(48, 57, St 81), (97, 102, St 81), (65, 70, St 81)],
     Case 81 [(58, St 85)] [(48, 57, St 82), (97, 102, St 82), (65, 70, St 82)]]"

definition ha_blocks_8 :: "flow_action rgl_block list" where
  "ha_blocks_8 =
    [Case 82 [(58, St 85)] [(48, 57, St 83), (97, 102, St 83), (65, 70, St 83)],
     Case 83 [(58, St 85)] [(48, 57, St 84), (97, 102, St 84), (65, 70, St 84)],
     Case 84 [(58, St 85)] [],
     Case 85 [(58, St 127)] [(48, 57, St 86), (97, 102, St 86), (65, 70, St 86)],
     Case 86 [(58, St 90)] [(48, 57, St 87), (97, 102, St 87), (65, 70, St 87)],
     Case 87 [(58, St 90)] [(48, 57, St 88), (97, 102, St 88), (65, 70, St 88)],
     Case 88 [(58, St 90)] [(48, 57, St 89), (97, 102, St 89), (65, 70, St 89)],
     Case 89 [(58, St 90)] [],
     Case 90 [(58, St 113)] [(48, 57, St 91), (97, 102, St 91), (65, 70, St 91)],
     Case 91 [(58, St 95)] [(48, 57, St 92), (97, 102, St 92), (65, 70, St 92)]]"

definition ha_blocks_9 :: "flow_action rgl_block list" where
  "ha_blocks_9 =
    [Case 92 [(58, St 95)] [(48, 57, St 93), (97, 102, St 93), (65, 70, St 93)],
     Case 93 [(58, St 95)] [(48, 57, St 94), (97, 102, St 94), (65, 70, St 94)],
     Case 94 [(58, St 95)] [],
     Case 95 [(48, St 96), (49, St 104), (50, St 107), (58, St 111)] [(51, 57, St 110), (97, 102,
       St 112), (65, 70, St 112)],
     Case 96 [(46, St 22), (58, St 100)] [(48, 57, St 97), (97, 102, St 97), (65, 70, St 97)],
     Case 97 [(58, St 100)] [(48, 57, St 98), (97, 102, St 98), (65, 70, St 98)],
     Case 98 [(58, St 100)] [(48, 57, St 99), (97, 102, St 99), (65, 70, St 99)],
     Case 99 [(58, St 100)] [],
     Case 100 [(58, St 27)] [(48, 57, St 101), (97, 102, St 101), (65, 70, St 101)],
     Case 101 [(32, St 28)] [(48, 57, St 102), (97, 102, St 102), (65, 70, St 102)]]"

definition ha_blocks_10 :: "flow_action rgl_block list" where
  "ha_blocks_10 =
    [Case 102 [(32, St 28)] [(48, 57, St 103), (97, 102, St 103), (65, 70, St 103)],
     Case 103 [(32, St 28)] [(48, 57, St 27), (97, 102, St 27), (65, 70, St 27)],
     Case 104 [(46, St 22), (58, St 100)] [(48, 57, St 105), (97, 102, St 97), (65, 70, St 97)],
     Case 105 [(46, St 22), (58, St 100)] [(48, 57, St 106), (97, 102, St 98), (65, 70, St 98)],
     Case 106 [(46, St 22), (58, St 100)] [(48, 57, St 99), (97, 102, St 99), (65, 70, St 99)],
     Case 107 [(46, St 22), (53, St 108), (58, St 100)] [(48, 52, St 105), (97, 102, St 97), (65,
       70, St 97), (54, 57, St 109)],
     Case 108 [(46, St 22), (58, St 100)] [(48, 53, St 106), (97, 102, St 98), (65, 70, St 98),
       (54, 57, St 98)],
     Case 109 [(46, St 22), (58, St 100)] [(48, 57, St 98), (97, 102, St 98), (65, 70, St 98)]]"

definition ha_blocks_11 :: "flow_action rgl_block list" where
  "ha_blocks_11 =
    [Case 110 [(46, St 22), (58, St 100)] [(48, 57, St 109), (97, 102, St 97), (65, 70, St 97)],
     Case 111 [(32, St 28)] [(48, 57, St 101), (97, 102, St 101), (65, 70, St 101)],
     Case 112 [(58, St 100)] [(48, 57, St 97), (97, 102, St 97), (65, 70, St 97)],
     Case 113 [(32, St 28), (48, St 114), (49, St 119), (50, St 122)] [(51, 57, St 125), (97, 102,
       St 126), (65, 70, St 126)],
     Case 114 [(32, St 28), (46, St 22), (58, St 118)] [(48, 57, St 115), (97, 102, St 115), (65,
       70, St 115)],
     Case 115 [(32, St 28), (58, St 118)] [(48, 57, St 116), (97, 102, St 116), (65, 70, St 116)],
     Case 116 [(32, St 28), (58, St 118)] [(48, 57, St 117), (97, 102, St 117), (65, 70, St 117)],
     Case 117 [(32, St 28), (58, St 118)] [],
     Case 118 [] [(48, 57, St 101), (97, 102, St 101), (65, 70, St 101)]]"

definition ha_blocks_12 :: "flow_action rgl_block list" where
  "ha_blocks_12 =
    [Case 119 [(32, St 28), (46, St 22), (58, St 118)] [(48, 57, St 120), (97, 102, St 115), (65,
       70, St 115)],
     Case 120 [(32, St 28), (46, St 22), (58, St 118)] [(48, 57, St 121), (97, 102, St 116), (65,
       70, St 116)],
     Case 121 [(32, St 28), (46, St 22), (58, St 118)] [(48, 57, St 117), (97, 102, St 117), (65,
       70, St 117)],
     Case 122 [(32, St 28), (46, St 22), (53, St 123), (58, St 118)] [(48, 52, St 120), (97, 102,
       St 115), (65, 70, St 115), (54, 57, St 124)],
     Case 123 [(32, St 28), (46, St 22), (58, St 118)] [(48, 53, St 121), (97, 102, St 116), (65,
       70, St 116), (54, 57, St 116)],
     Case 124 [(32, St 28), (46, St 22), (58, St 118)] [(48, 57, St 116), (97, 102, St 116), (65,
       70, St 116)],
     Case 125 [(32, St 28), (46, St 22), (58, St 118)] [(48, 57, St 124), (97, 102, St 115), (65,
       70, St 115)]]"

definition ha_blocks_13 :: "flow_action rgl_block list" where
  "ha_blocks_13 =
    [Case 126 [(32, St 28), (58, St 118)] [(48, 57, St 115), (97, 102, St 115), (65, 70, St 115)],
     Case 127 [(32, St 28), (48, St 128), (49, St 133), (50, St 136)] [(51, 57, St 139), (97, 102,
       St 140), (65, 70, St 140)],
     Case 128 [(32, St 28), (46, St 22), (58, St 132)] [(48, 57, St 129), (97, 102, St 129), (65,
       70, St 129)],
     Case 129 [(32, St 28), (58, St 132)] [(48, 57, St 130), (97, 102, St 130), (65, 70, St 130)],
     Case 130 [(32, St 28), (58, St 132)] [(48, 57, St 131), (97, 102, St 131), (65, 70, St 131)],
     Case 131 [(32, St 28), (58, St 132)] [],
     Case 132 [(48, St 114), (49, St 119), (50, St 122)] [(51, 57, St 125), (97, 102, St 126), (65,
       70, St 126)],
     Case 133 [(32, St 28), (46, St 22), (58, St 132)] [(48, 57, St 134), (97, 102, St 129), (65,
       70, St 129)]]"

definition ha_blocks_14 :: "flow_action rgl_block list" where
  "ha_blocks_14 =
    [Case 134 [(32, St 28), (46, St 22), (58, St 132)] [(48, 57, St 135), (97, 102, St 130), (65,
       70, St 130)],
     Case 135 [(32, St 28), (46, St 22), (58, St 132)] [(48, 57, St 131), (97, 102, St 131), (65,
       70, St 131)],
     Case 136 [(32, St 28), (46, St 22), (53, St 137), (58, St 132)] [(48, 52, St 134), (97, 102,
       St 129), (65, 70, St 129), (54, 57, St 138)],
     Case 137 [(32, St 28), (46, St 22), (58, St 132)] [(48, 53, St 135), (97, 102, St 130), (65,
       70, St 130), (54, 57, St 130)],
     Case 138 [(32, St 28), (46, St 22), (58, St 132)] [(48, 57, St 130), (97, 102, St 130), (65,
       70, St 130)],
     Case 139 [(32, St 28), (46, St 22), (58, St 132)] [(48, 57, St 138), (97, 102, St 129), (65,
       70, St 129)],
     Case 140 [(32, St 28), (58, St 132)] [(48, 57, St 129), (97, 102, St 129), (65, 70, St 129)]]"

definition ha_blocks_15 :: "flow_action rgl_block list" where
  "ha_blocks_15 =
    [Case 141 [(32, St 28), (48, St 142), (49, St 147), (50, St 150)] [(51, 57, St 153), (97, 102,
       St 154), (65, 70, St 154)],
     Case 142 [(32, St 28), (46, St 22), (58, St 146)] [(48, 57, St 143), (97, 102, St 143), (65,
       70, St 143)],
     Case 143 [(32, St 28), (58, St 146)] [(48, 57, St 144), (97, 102, St 144), (65, 70, St 144)],
     Case 144 [(32, St 28), (58, St 146)] [(48, 57, St 145), (97, 102, St 145), (65, 70, St 145)],
     Case 145 [(32, St 28), (58, St 146)] [],
     Case 146 [(48, St 128), (49, St 133), (50, St 136)] [(51, 57, St 139), (97, 102, St 140), (65,
       70, St 140)],
     Case 147 [(32, St 28), (46, St 22), (58, St 146)] [(48, 57, St 148), (97, 102, St 143), (65,
       70, St 143)],
     Case 148 [(32, St 28), (46, St 22), (58, St 146)] [(48, 57, St 149), (97, 102, St 144), (65,
       70, St 144)]]"

definition ha_blocks_16 :: "flow_action rgl_block list" where
  "ha_blocks_16 =
    [Case 149 [(32, St 28), (46, St 22), (58, St 146)] [(48, 57, St 145), (97, 102, St 145), (65,
       70, St 145)],
     Case 150 [(32, St 28), (46, St 22), (53, St 151), (58, St 146)] [(48, 52, St 148), (97, 102,
       St 143), (65, 70, St 143), (54, 57, St 152)],
     Case 151 [(32, St 28), (46, St 22), (58, St 146)] [(48, 53, St 149), (97, 102, St 144), (65,
       70, St 144), (54, 57, St 144)],
     Case 152 [(32, St 28), (46, St 22), (58, St 146)] [(48, 57, St 144), (97, 102, St 144), (65,
       70, St 144)],
     Case 153 [(32, St 28), (46, St 22), (58, St 146)] [(48, 57, St 152), (97, 102, St 143), (65,
       70, St 143)],
     Case 154 [(32, St 28), (58, St 146)] [(48, 57, St 143), (97, 102, St 143), (65, 70, St 143)],
     Case 155 [(32, St 28), (48, St 156), (49, St 161), (50, St 164)] [(51, 57, St 167), (97, 102,
       St 168), (65, 70, St 168)]]"

definition ha_blocks_17 :: "flow_action rgl_block list" where
  "ha_blocks_17 =
    [Case 156 [(32, St 28), (46, St 22), (58, St 160)] [(48, 57, St 157), (97, 102, St 157), (65,
       70, St 157)],
     Case 157 [(32, St 28), (58, St 160)] [(48, 57, St 158), (97, 102, St 158), (65, 70, St 158)],
     Case 158 [(32, St 28), (58, St 160)] [(48, 57, St 159), (97, 102, St 159), (65, 70, St 159)],
     Case 159 [(32, St 28), (58, St 160)] [],
     Case 160 [(48, St 142), (49, St 147), (50, St 150)] [(51, 57, St 153), (97, 102, St 154), (65,
       70, St 154)],
     Case 161 [(32, St 28), (46, St 22), (58, St 160)] [(48, 57, St 162), (97, 102, St 157), (65,
       70, St 157)],
     Case 162 [(32, St 28), (46, St 22), (58, St 160)] [(48, 57, St 163), (97, 102, St 158), (65,
       70, St 158)],
     Case 163 [(32, St 28), (46, St 22), (58, St 160)] [(48, 57, St 159), (97, 102, St 159), (65,
       70, St 159)]]"

definition ha_blocks_18 :: "flow_action rgl_block list" where
  "ha_blocks_18 =
    [Case 164 [(32, St 28), (46, St 22), (53, St 165), (58, St 160)] [(48, 52, St 162), (97, 102,
       St 157), (65, 70, St 157), (54, 57, St 166)],
     Case 165 [(32, St 28), (46, St 22), (58, St 160)] [(48, 53, St 163), (97, 102, St 158), (65,
       70, St 158), (54, 57, St 158)],
     Case 166 [(32, St 28), (46, St 22), (58, St 160)] [(48, 57, St 158), (97, 102, St 158), (65,
       70, St 158)],
     Case 167 [(32, St 28), (46, St 22), (58, St 160)] [(48, 57, St 166), (97, 102, St 157), (65,
       70, St 157)],
     Case 168 [(32, St 28), (58, St 160)] [(48, 57, St 157), (97, 102, St 157), (65, 70, St 157)],
     Case 169 [(32, St 28), (48, St 170), (49, St 175), (50, St 178)] [(51, 57, St 181), (97, 102,
       St 182), (65, 70, St 182)],
     Case 170 [(32, St 28), (46, St 22), (58, St 174)] [(48, 57, St 171), (97, 102, St 171), (65,
       70, St 171)]]"

definition ha_blocks_19 :: "flow_action rgl_block list" where
  "ha_blocks_19 =
    [Case 171 [(32, St 28), (58, St 174)] [(48, 57, St 172), (97, 102, St 172), (65, 70, St 172)],
     Case 172 [(32, St 28), (58, St 174)] [(48, 57, St 173), (97, 102, St 173), (65, 70, St 173)],
     Case 173 [(32, St 28), (58, St 174)] [],
     Case 174 [(48, St 156), (49, St 161), (50, St 164)] [(51, 57, St 167), (97, 102, St 168), (65,
       70, St 168)],
     Case 175 [(32, St 28), (46, St 22), (58, St 174)] [(48, 57, St 176), (97, 102, St 171), (65,
       70, St 171)],
     Case 176 [(32, St 28), (46, St 22), (58, St 174)] [(48, 57, St 177), (97, 102, St 172), (65,
       70, St 172)],
     Case 177 [(32, St 28), (46, St 22), (58, St 174)] [(48, 57, St 173), (97, 102, St 173), (65,
       70, St 173)],
     Case 178 [(32, St 28), (46, St 22), (53, St 179), (58, St 174)] [(48, 52, St 176), (97, 102,
       St 171), (65, 70, St 171), (54, 57, St 180)]]"

definition ha_blocks_20 :: "flow_action rgl_block list" where
  "ha_blocks_20 =
    [Case 179 [(32, St 28), (46, St 22), (58, St 174)] [(48, 53, St 177), (97, 102, St 172), (65,
       70, St 172), (54, 57, St 172)],
     Case 180 [(32, St 28), (46, St 22), (58, St 174)] [(48, 57, St 172), (97, 102, St 172), (65,
       70, St 172)],
     Case 181 [(32, St 28), (46, St 22), (58, St 174)] [(48, 57, St 180), (97, 102, St 171), (65,
       70, St 171)],
     Case 182 [(32, St 28), (58, St 174)] [(48, 57, St 171), (97, 102, St 171), (65, 70, St 171)],
     Case 183 [(46, St 22), (58, St 70)] [(48, 57, St 184), (97, 102, St 67), (65, 70, St 67)],
     Case 184 [(46, St 22), (58, St 70)] [(48, 57, St 185), (97, 102, St 68), (65, 70, St 68)],
     Case 185 [(46, St 22), (58, St 70)] [(48, 57, St 69), (97, 102, St 69), (65, 70, St 69)],
     Case 186 [(46, St 22), (53, St 187), (58, St 70)] [(48, 52, St 184), (97, 102, St 67), (65,
       70, St 67), (54, 57, St 188)]]"

definition ha_blocks_21 :: "flow_action rgl_block list" where
  "ha_blocks_21 =
    [Case 187 [(46, St 22), (58, St 70)] [(48, 53, St 185), (97, 102, St 68), (65, 70, St 68), (54,
       57, St 68)],
     Case 188 [(46, St 22), (58, St 70)] [(48, 57, St 68), (97, 102, St 68), (65, 70, St 68)],
     Case 189 [(46, St 22), (58, St 70)] [(48, 57, St 188), (97, 102, St 67), (65, 70, St 67)],
     Case 190 [(58, St 191)] [],
     Case 191 [(32, St 28), (48, St 192), (49, St 197), (50, St 200)] [(51, 57, St 203), (97, 102,
       St 204), (65, 70, St 204)],
     Case 192 [(32, St 28), (46, St 22), (58, St 196)] [(48, 57, St 193), (97, 102, St 193), (65,
       70, St 193)],
     Case 193 [(32, St 28), (58, St 196)] [(48, 57, St 194), (97, 102, St 194), (65, 70, St 194)],
     Case 194 [(32, St 28), (58, St 196)] [(48, 57, St 195), (97, 102, St 195), (65, 70, St 195)],
     Case 195 [(32, St 28), (58, St 196)] []]"

definition ha_blocks_22 :: "flow_action rgl_block list" where
  "ha_blocks_22 =
    [Case 196 [(48, St 170), (49, St 175), (50, St 178)] [(51, 57, St 181), (97, 102, St 182), (65,
       70, St 182)],
     Case 197 [(32, St 28), (46, St 22), (58, St 196)] [(48, 57, St 198), (97, 102, St 193), (65,
       70, St 193)],
     Case 198 [(32, St 28), (46, St 22), (58, St 196)] [(48, 57, St 199), (97, 102, St 194), (65,
       70, St 194)],
     Case 199 [(32, St 28), (46, St 22), (58, St 196)] [(48, 57, St 195), (97, 102, St 195), (65,
       70, St 195)],
     Case 200 [(32, St 28), (46, St 22), (53, St 201), (58, St 196)] [(48, 52, St 198), (97, 102,
       St 193), (65, 70, St 193), (54, 57, St 202)],
     Case 201 [(32, St 28), (46, St 22), (58, St 196)] [(48, 53, St 199), (97, 102, St 194), (65,
       70, St 194), (54, 57, St 194)],
     Case 202 [(32, St 28), (46, St 22), (58, St 196)] [(48, 57, St 194), (97, 102, St 194), (65,
       70, St 194)]]"

definition ha_blocks_23 :: "flow_action rgl_block list" where
  "ha_blocks_23 =
    [Case 203 [(32, St 28), (46, St 22), (58, St 196)] [(48, 57, St 202), (97, 102, St 193), (65,
       70, St 193)],
     Case 204 [(32, St 28), (58, St 196)] [(48, 57, St 193), (97, 102, St 193), (65, 70, St 193)],
     Case 205 [(58, St 70)] [(48, 57, St 67), (97, 102, St 67), (65, 70, St 67)],
     Case 206 [(32, Tr 35)] [(48, 57, St 207)],
     Case 207 [(32, Tr 35)] [(48, 57, St 19)],
     Case 208 [(32, Tr 35), (53, St 209)] [(54, 57, St 19), (48, 52, St 207)],
     Case 209 [(32, Tr 35)] [(48, 53, St 19)],
     Case 210 [(46, St 18)] [(48, 57, St 211)],
     Case 211 [(46, St 18)] [(48, 57, St 17)],
     Case 212 [(46, St 18), (53, St 213)] [(54, 57, St 17), (48, 52, St 211)],
     Case 213 [(46, St 18)] [(48, 53, St 17)],
     Case 214 [(46, St 16)] [(48, 57, St 215)]]"

definition ha_blocks_24 :: "flow_action rgl_block list" where
  "ha_blocks_24 =
    [Case 215 [(46, St 16)] [(48, 57, St 15)],
     Case 216 [(46, St 16), (53, St 217)] [(54, 57, St 15), (48, 52, St 215)],
     Case 217 [(46, St 16)] [(48, 53, St 15)],
     Case 218 [(58, St 221)] [(48, 57, St 219), (97, 102, St 219), (65, 70, St 219)],
     Case 219 [(58, St 221)] [(48, 57, St 220), (97, 102, St 220), (65, 70, St 220)],
     Case 220 [(58, St 221)] [],
     Case 221 [(58, St 338)] [(48, 57, St 222), (97, 102, St 222), (65, 70, St 222)],
     Case 222 [(58, St 226)] [(48, 57, St 223), (97, 102, St 223), (65, 70, St 223)],
     Case 223 [(58, St 226)] [(48, 57, St 224), (97, 102, St 224), (65, 70, St 224)],
     Case 224 [(58, St 226)] [(48, 57, St 225), (97, 102, St 225), (65, 70, St 225)],
     Case 225 [(58, St 226)] []]"

definition ha_blocks_25 :: "flow_action rgl_block list" where
  "ha_blocks_25 =
    [Case 226 [(58, St 324)] [(48, 57, St 227), (97, 102, St 227), (65, 70, St 227)],
     Case 227 [(58, St 231)] [(48, 57, St 228), (97, 102, St 228), (65, 70, St 228)],
     Case 228 [(58, St 231)] [(48, 57, St 229), (97, 102, St 229), (65, 70, St 229)],
     Case 229 [(58, St 231)] [(48, 57, St 230), (97, 102, St 230), (65, 70, St 230)],
     Case 230 [(58, St 231)] [],
     Case 231 [(58, St 310)] [(48, 57, St 232), (97, 102, St 232), (65, 70, St 232)],
     Case 232 [(58, St 236)] [(48, 57, St 233), (97, 102, St 233), (65, 70, St 233)],
     Case 233 [(58, St 236)] [(48, 57, St 234), (97, 102, St 234), (65, 70, St 234)],
     Case 234 [(58, St 236)] [(48, 57, St 235), (97, 102, St 235), (65, 70, St 235)],
     Case 235 [(58, St 236)] []]"

definition ha_blocks_26 :: "flow_action rgl_block list" where
  "ha_blocks_26 =
    [Case 236 [(58, St 296)] [(48, 57, St 237), (97, 102, St 237), (65, 70, St 237)],
     Case 237 [(58, St 241)] [(48, 57, St 238), (97, 102, St 238), (65, 70, St 238)],
     Case 238 [(58, St 241)] [(48, 57, St 239), (97, 102, St 239), (65, 70, St 239)],
     Case 239 [(58, St 241)] [(48, 57, St 240), (97, 102, St 240), (65, 70, St 240)],
     Case 240 [(58, St 241)] [],
     Case 241 [(58, St 282)] [(48, 57, St 242), (97, 102, St 242), (65, 70, St 242)],
     Case 242 [(58, St 246)] [(48, 57, St 243), (97, 102, St 243), (65, 70, St 243)],
     Case 243 [(58, St 246)] [(48, 57, St 244), (97, 102, St 244), (65, 70, St 244)],
     Case 244 [(58, St 246)] [(48, 57, St 245), (97, 102, St 245), (65, 70, St 245)],
     Case 245 [(58, St 246)] []]"

definition ha_blocks_27 :: "flow_action rgl_block list" where
  "ha_blocks_27 =
    [Case 246 [(48, St 247), (49, St 273), (50, St 276), (58, St 280)] [(51, 57, St 279), (97, 102,
       St 281), (65, 70, St 281)],
     Case 247 [(46, St 248), (58, St 269)] [(48, 57, St 266), (97, 102, St 266), (65, 70, St 266)],
     Case 248 [(48, St 249), (49, St 262), (50, St 264)] [(51, 57, St 263)],
     Case 249 [(46, St 250)] [],
     Case 250 [(48, St 251), (49, St 258), (50, St 260)] [(51, 57, St 259)],
     Case 251 [(46, St 252)] [],
     Case 252 [(48, St 253), (49, St 254), (50, St 256)] [(51, 57, St 255)],
     Case 253 [(32, Tr 281)] [],
     Case 254 [(32, Tr 281)] [(48, 57, St 255)],
     Case 255 [(32, Tr 281)] [(48, 57, St 253)],
     Case 256 [(32, Tr 281), (53, St 257)] [(54, 57, St 253), (48, 52, St 255)],
     Case 257 [(32, Tr 281)] [(48, 53, St 253)],
     Case 258 [(46, St 252)] [(48, 57, St 259)]]"

definition ha_blocks_28 :: "flow_action rgl_block list" where
  "ha_blocks_28 =
    [Case 259 [(46, St 252)] [(48, 57, St 251)],
     Case 260 [(46, St 252), (53, St 261)] [(54, 57, St 251), (48, 52, St 259)],
     Case 261 [(46, St 252)] [(48, 53, St 251)],
     Case 262 [(46, St 250)] [(48, 57, St 263)],
     Case 263 [(46, St 250)] [(48, 57, St 249)],
     Case 264 [(46, St 250), (53, St 265)] [(54, 57, St 249), (48, 52, St 263)],
     Case 265 [(46, St 250)] [(48, 53, St 249)],
     Case 266 [(58, St 269)] [(48, 57, St 267), (97, 102, St 267), (65, 70, St 267)],
     Case 267 [(58, St 269)] [(48, 57, St 268), (97, 102, St 268), (65, 70, St 268)],
     Case 268 [(58, St 269)] [],
     Case 269 [(58, St 253)] [(48, 57, St 270), (97, 102, St 270), (65, 70, St 270)],
     Case 270 [(32, Tr 281)] [(48, 57, St 271), (97, 102, St 271), (65, 70, St 271)]]"

definition ha_blocks_29 :: "flow_action rgl_block list" where
  "ha_blocks_29 =
    [Case 271 [(32, Tr 281)] [(48, 57, St 272), (97, 102, St 272), (65, 70, St 272)],
     Case 272 [(32, Tr 281)] [(48, 57, St 253), (97, 102, St 253), (65, 70, St 253)],
     Case 273 [(46, St 248), (58, St 269)] [(48, 57, St 274), (97, 102, St 266), (65, 70, St 266)],
     Case 274 [(46, St 248), (58, St 269)] [(48, 57, St 275), (97, 102, St 267), (65, 70, St 267)],
     Case 275 [(46, St 248), (58, St 269)] [(48, 57, St 268), (97, 102, St 268), (65, 70, St 268)],
     Case 276 [(46, St 248), (53, St 277), (58, St 269)] [(48, 52, St 274), (97, 102, St 266), (65,
       70, St 266), (54, 57, St 278)],
     Case 277 [(46, St 248), (58, St 269)] [(48, 53, St 275), (97, 102, St 267), (65, 70, St 267),
       (54, 57, St 267)],
     Case 278 [(46, St 248), (58, St 269)] [(48, 57, St 267), (97, 102, St 267), (65, 70, St 267)]]"

definition ha_blocks_30 :: "flow_action rgl_block list" where
  "ha_blocks_30 =
    [Case 279 [(46, St 248), (58, St 269)] [(48, 57, St 278), (97, 102, St 266), (65, 70, St 266)],
     Case 280 [(32, Tr 281)] [(48, 57, St 270), (97, 102, St 270), (65, 70, St 270)],
     Case 281 [(58, St 269)] [(48, 57, St 266), (97, 102, St 266), (65, 70, St 266)],
     Case 282 [(32, Tr 281), (48, St 283), (49, St 288), (50, St 291)] [(51, 57, St 294), (97, 102,
       St 295), (65, 70, St 295)],
     Case 283 [(32, Tr 281), (46, St 248), (58, St 287)] [(48, 57, St 284), (97, 102, St 284), (65,
       70, St 284)],
     Case 284 [(32, Tr 281), (58, St 287)] [(48, 57, St 285), (97, 102, St 285), (65, 70, St 285)],
     Case 285 [(32, Tr 281), (58, St 287)] [(48, 57, St 286), (97, 102, St 286), (65, 70, St 286)],
     Case 286 [(32, Tr 281), (58, St 287)] [],
     Case 287 [] [(48, 57, St 270), (97, 102, St 270), (65, 70, St 270)]]"

definition ha_blocks_31 :: "flow_action rgl_block list" where
  "ha_blocks_31 =
    [Case 288 [(32, Tr 281), (46, St 248), (58, St 287)] [(48, 57, St 289), (97, 102, St 284), (65,
       70, St 284)],
     Case 289 [(32, Tr 281), (46, St 248), (58, St 287)] [(48, 57, St 290), (97, 102, St 285), (65,
       70, St 285)],
     Case 290 [(32, Tr 281), (46, St 248), (58, St 287)] [(48, 57, St 286), (97, 102, St 286), (65,
       70, St 286)],
     Case 291 [(32, Tr 281), (46, St 248), (53, St 292), (58, St 287)] [(48, 52, St 289), (97, 102,
       St 284), (65, 70, St 284), (54, 57, St 293)],
     Case 292 [(32, Tr 281), (46, St 248), (58, St 287)] [(48, 53, St 290), (97, 102, St 285), (65,
       70, St 285), (54, 57, St 285)],
     Case 293 [(32, Tr 281), (46, St 248), (58, St 287)] [(48, 57, St 285), (97, 102, St 285), (65,
       70, St 285)],
     Case 294 [(32, Tr 281), (46, St 248), (58, St 287)] [(48, 57, St 293), (97, 102, St 284), (65,
       70, St 284)]]"

definition ha_blocks_32 :: "flow_action rgl_block list" where
  "ha_blocks_32 =
    [Case 295 [(32, Tr 281), (58, St 287)] [(48, 57, St 284), (97, 102, St 284), (65, 70, St 284)],
     Case 296 [(32, Tr 281), (48, St 297), (49, St 302), (50, St 305)] [(51, 57, St 308), (97, 102,
       St 309), (65, 70, St 309)],
     Case 297 [(32, Tr 281), (46, St 248), (58, St 301)] [(48, 57, St 298), (97, 102, St 298), (65,
       70, St 298)],
     Case 298 [(32, Tr 281), (58, St 301)] [(48, 57, St 299), (97, 102, St 299), (65, 70, St 299)],
     Case 299 [(32, Tr 281), (58, St 301)] [(48, 57, St 300), (97, 102, St 300), (65, 70, St 300)],
     Case 300 [(32, Tr 281), (58, St 301)] [],
     Case 301 [(48, St 283), (49, St 288), (50, St 291)] [(51, 57, St 294), (97, 102, St 295), (65,
       70, St 295)],
     Case 302 [(32, Tr 281), (46, St 248), (58, St 301)] [(48, 57, St 303), (97, 102, St 298), (65,
       70, St 298)]]"

definition ha_blocks_33 :: "flow_action rgl_block list" where
  "ha_blocks_33 =
    [Case 303 [(32, Tr 281), (46, St 248), (58, St 301)] [(48, 57, St 304), (97, 102, St 299), (65,
       70, St 299)],
     Case 304 [(32, Tr 281), (46, St 248), (58, St 301)] [(48, 57, St 300), (97, 102, St 300), (65,
       70, St 300)],
     Case 305 [(32, Tr 281), (46, St 248), (53, St 306), (58, St 301)] [(48, 52, St 303), (97, 102,
       St 298), (65, 70, St 298), (54, 57, St 307)],
     Case 306 [(32, Tr 281), (46, St 248), (58, St 301)] [(48, 53, St 304), (97, 102, St 299), (65,
       70, St 299), (54, 57, St 299)],
     Case 307 [(32, Tr 281), (46, St 248), (58, St 301)] [(48, 57, St 299), (97, 102, St 299), (65,
       70, St 299)],
     Case 308 [(32, Tr 281), (46, St 248), (58, St 301)] [(48, 57, St 307), (97, 102, St 298), (65,
       70, St 298)],
     Case 309 [(32, Tr 281), (58, St 301)] [(48, 57, St 298), (97, 102, St 298), (65, 70, St 298)]]"

definition ha_blocks_34 :: "flow_action rgl_block list" where
  "ha_blocks_34 =
    [Case 310 [(32, Tr 281), (48, St 311), (49, St 316), (50, St 319)] [(51, 57, St 322), (97, 102,
       St 323), (65, 70, St 323)],
     Case 311 [(32, Tr 281), (46, St 248), (58, St 315)] [(48, 57, St 312), (97, 102, St 312), (65,
       70, St 312)],
     Case 312 [(32, Tr 281), (58, St 315)] [(48, 57, St 313), (97, 102, St 313), (65, 70, St 313)],
     Case 313 [(32, Tr 281), (58, St 315)] [(48, 57, St 314), (97, 102, St 314), (65, 70, St 314)],
     Case 314 [(32, Tr 281), (58, St 315)] [],
     Case 315 [(48, St 297), (49, St 302), (50, St 305)] [(51, 57, St 308), (97, 102, St 309), (65,
       70, St 309)],
     Case 316 [(32, Tr 281), (46, St 248), (58, St 315)] [(48, 57, St 317), (97, 102, St 312), (65,
       70, St 312)],
     Case 317 [(32, Tr 281), (46, St 248), (58, St 315)] [(48, 57, St 318), (97, 102, St 313), (65,
       70, St 313)]]"

definition ha_blocks_35 :: "flow_action rgl_block list" where
  "ha_blocks_35 =
    [Case 318 [(32, Tr 281), (46, St 248), (58, St 315)] [(48, 57, St 314), (97, 102, St 314), (65,
       70, St 314)],
     Case 319 [(32, Tr 281), (46, St 248), (53, St 320), (58, St 315)] [(48, 52, St 317), (97, 102,
       St 312), (65, 70, St 312), (54, 57, St 321)],
     Case 320 [(32, Tr 281), (46, St 248), (58, St 315)] [(48, 53, St 318), (97, 102, St 313), (65,
       70, St 313), (54, 57, St 313)],
     Case 321 [(32, Tr 281), (46, St 248), (58, St 315)] [(48, 57, St 313), (97, 102, St 313), (65,
       70, St 313)],
     Case 322 [(32, Tr 281), (46, St 248), (58, St 315)] [(48, 57, St 321), (97, 102, St 312), (65,
       70, St 312)],
     Case 323 [(32, Tr 281), (58, St 315)] [(48, 57, St 312), (97, 102, St 312), (65, 70, St 312)],
     Case 324 [(32, Tr 281), (48, St 325), (49, St 330), (50, St 333)] [(51, 57, St 336), (97, 102,
       St 337), (65, 70, St 337)]]"

definition ha_blocks_36 :: "flow_action rgl_block list" where
  "ha_blocks_36 =
    [Case 325 [(32, Tr 281), (46, St 248), (58, St 329)] [(48, 57, St 326), (97, 102, St 326), (65,
       70, St 326)],
     Case 326 [(32, Tr 281), (58, St 329)] [(48, 57, St 327), (97, 102, St 327), (65, 70, St 327)],
     Case 327 [(32, Tr 281), (58, St 329)] [(48, 57, St 328), (97, 102, St 328), (65, 70, St 328)],
     Case 328 [(32, Tr 281), (58, St 329)] [],
     Case 329 [(48, St 311), (49, St 316), (50, St 319)] [(51, 57, St 322), (97, 102, St 323), (65,
       70, St 323)],
     Case 330 [(32, Tr 281), (46, St 248), (58, St 329)] [(48, 57, St 331), (97, 102, St 326), (65,
       70, St 326)],
     Case 331 [(32, Tr 281), (46, St 248), (58, St 329)] [(48, 57, St 332), (97, 102, St 327), (65,
       70, St 327)],
     Case 332 [(32, Tr 281), (46, St 248), (58, St 329)] [(48, 57, St 328), (97, 102, St 328), (65,
       70, St 328)]]"

definition ha_blocks_37 :: "flow_action rgl_block list" where
  "ha_blocks_37 =
    [Case 333 [(32, Tr 281), (46, St 248), (53, St 334), (58, St 329)] [(48, 52, St 331), (97, 102,
       St 326), (65, 70, St 326), (54, 57, St 335)],
     Case 334 [(32, Tr 281), (46, St 248), (58, St 329)] [(48, 53, St 332), (97, 102, St 327), (65,
       70, St 327), (54, 57, St 327)],
     Case 335 [(32, Tr 281), (46, St 248), (58, St 329)] [(48, 57, St 327), (97, 102, St 327), (65,
       70, St 327)],
     Case 336 [(32, Tr 281), (46, St 248), (58, St 329)] [(48, 57, St 335), (97, 102, St 326), (65,
       70, St 326)],
     Case 337 [(32, Tr 281), (58, St 329)] [(48, 57, St 326), (97, 102, St 326), (65, 70, St 326)],
     Case 338 [(32, Tr 281), (48, St 339), (49, St 344), (50, St 347)] [(51, 57, St 350), (97, 102,
       St 351), (65, 70, St 351)],
     Case 339 [(32, Tr 281), (46, St 248), (58, St 343)] [(48, 57, St 340), (97, 102, St 340), (65,
       70, St 340)]]"

definition ha_blocks_38 :: "flow_action rgl_block list" where
  "ha_blocks_38 =
    [Case 340 [(32, Tr 281), (58, St 343)] [(48, 57, St 341), (97, 102, St 341), (65, 70, St 341)],
     Case 341 [(32, Tr 281), (58, St 343)] [(48, 57, St 342), (97, 102, St 342), (65, 70, St 342)],
     Case 342 [(32, Tr 281), (58, St 343)] [],
     Case 343 [(48, St 325), (49, St 330), (50, St 333)] [(51, 57, St 336), (97, 102, St 337), (65,
       70, St 337)],
     Case 344 [(32, Tr 281), (46, St 248), (58, St 343)] [(48, 57, St 345), (97, 102, St 340), (65,
       70, St 340)],
     Case 345 [(32, Tr 281), (46, St 248), (58, St 343)] [(48, 57, St 346), (97, 102, St 341), (65,
       70, St 341)],
     Case 346 [(32, Tr 281), (46, St 248), (58, St 343)] [(48, 57, St 342), (97, 102, St 342), (65,
       70, St 342)],
     Case 347 [(32, Tr 281), (46, St 248), (53, St 348), (58, St 343)] [(48, 52, St 345), (97, 102,
       St 340), (65, 70, St 340), (54, 57, St 349)]]"

definition ha_blocks_39 :: "flow_action rgl_block list" where
  "ha_blocks_39 =
    [Case 348 [(32, Tr 281), (46, St 248), (58, St 343)] [(48, 53, St 346), (97, 102, St 341), (65,
       70, St 341), (54, 57, St 341)],
     Case 349 [(32, Tr 281), (46, St 248), (58, St 343)] [(48, 57, St 341), (97, 102, St 341), (65,
       70, St 341)],
     Case 350 [(32, Tr 281), (46, St 248), (58, St 343)] [(48, 57, St 349), (97, 102, St 340), (65,
       70, St 340)],
     Case 351 [(32, Tr 281), (58, St 343)] [(48, 57, St 340), (97, 102, St 340), (65, 70, St 340)],
     Trans 13 [Start_ip] 352,
     Case 352 [(46, St 14), (58, St 221)] [(48, 57, St 353), (97, 102, St 218), (65, 70, St 218)],
     Case 353 [(46, St 14), (58, St 221)] [(48, 57, St 354), (97, 102, St 219), (65, 70, St 219)],
     Case 354 [(46, St 14), (58, St 221)] [(48, 57, St 220), (97, 102, St 220), (65, 70, St 220)],
     Trans 14 [Start_ip] 355]"

definition ha_blocks_40 :: "flow_action rgl_block list" where
  "ha_blocks_40 =
    [Case 355 [(46, St 14), (53, St 356), (58, St 221)] [(48, 52, St 353), (97, 102, St 218), (65,
       70, St 218), (54, 57, St 357)],
     Case 356 [(46, St 14), (58, St 221)] [(48, 53, St 354), (97, 102, St 219), (65, 70, St 219),
       (54, 57, St 219)],
     Case 357 [(46, St 14), (58, St 221)] [(48, 57, St 219), (97, 102, St 219), (65, 70, St 219)],
     Trans 15 [Start_ip] 358,
     Case 358 [(46, St 14), (58, St 221)] [(48, 57, St 357), (97, 102, St 218), (65, 70, St 218)],
     Trans 16 [Start_ip] 359,
     Case 359 [(58, St 360)] [],
     Case 360 [(32, Tr 281), (48, St 361), (49, St 366), (50, St 369)] [(51, 57, St 372), (97, 102,
       St 373), (65, 70, St 373)],
     Case 361 [(32, Tr 281), (46, St 248), (58, St 365)] [(48, 57, St 362), (97, 102, St 362), (65,
       70, St 362)]]"

definition ha_blocks_41 :: "flow_action rgl_block list" where
  "ha_blocks_41 =
    [Case 362 [(32, Tr 281), (58, St 365)] [(48, 57, St 363), (97, 102, St 363), (65, 70, St 363)],
     Case 363 [(32, Tr 281), (58, St 365)] [(48, 57, St 364), (97, 102, St 364), (65, 70, St 364)],
     Case 364 [(32, Tr 281), (58, St 365)] [],
     Case 365 [(48, St 339), (49, St 344), (50, St 347)] [(51, 57, St 350), (97, 102, St 351), (65,
       70, St 351)],
     Case 366 [(32, Tr 281), (46, St 248), (58, St 365)] [(48, 57, St 367), (97, 102, St 362), (65,
       70, St 362)],
     Case 367 [(32, Tr 281), (46, St 248), (58, St 365)] [(48, 57, St 368), (97, 102, St 363), (65,
       70, St 363)],
     Case 368 [(32, Tr 281), (46, St 248), (58, St 365)] [(48, 57, St 364), (97, 102, St 364), (65,
       70, St 364)],
     Case 369 [(32, Tr 281), (46, St 248), (53, St 370), (58, St 365)] [(48, 52, St 367), (97, 102,
       St 362), (65, 70, St 362), (54, 57, St 371)]]"

definition ha_blocks_42 :: "flow_action rgl_block list" where
  "ha_blocks_42 =
    [Case 370 [(32, Tr 281), (46, St 248), (58, St 365)] [(48, 53, St 368), (97, 102, St 363), (65,
       70, St 363), (54, 57, St 363)],
     Case 371 [(32, Tr 281), (46, St 248), (58, St 365)] [(48, 57, St 363), (97, 102, St 363), (65,
       70, St 363)],
     Case 372 [(32, Tr 281), (46, St 248), (58, St 365)] [(48, 57, St 371), (97, 102, St 362), (65,
       70, St 362)],
     Case 373 [(32, Tr 281), (58, St 365)] [(48, 57, St 362), (97, 102, St 362), (65, 70, St 362)],
     Trans 17 [Start_ip] 374,
     Case 374 [(58, St 221)] [(48, 57, St 218), (97, 102, St 218), (65, 70, St 218)]]"

definition ha_blocks :: "flow_action rgl_block list" where
  "ha_blocks =
     ha_blocks_1 @ ha_blocks_2 @ ha_blocks_3 @ ha_blocks_4 @ ha_blocks_5 @ ha_blocks_6 @
     ha_blocks_7 @ ha_blocks_8 @ ha_blocks_9 @ ha_blocks_10 @ ha_blocks_11 @ ha_blocks_12 @
     ha_blocks_13 @ ha_blocks_14 @ ha_blocks_15 @ ha_blocks_16 @ ha_blocks_17 @ ha_blocks_18 @
     ha_blocks_19 @ ha_blocks_20 @ ha_blocks_21 @ ha_blocks_22 @ ha_blocks_23 @ ha_blocks_24 @
     ha_blocks_25 @ ha_blocks_26 @ ha_blocks_27 @ ha_blocks_28 @ ha_blocks_29 @ ha_blocks_30 @
     ha_blocks_31 @ ha_blocks_32 @ ha_blocks_33 @ ha_blocks_34 @ ha_blocks_35 @ ha_blocks_36 @
     ha_blocks_37 @ ha_blocks_38 @ ha_blocks_39 @ ha_blocks_40 @ ha_blocks_41 @ ha_blocks_42"

lemmas ha_blocks_1_case = arg_cong [where f = "\<lambda>p. rgl_case p s" for s, OF ha_blocks_1_def, unfolded rgl_case.simps]

lemmas ha_blocks_1_trans = arg_cong [where f = "\<lambda>p. rgl_trans p s" for s, OF ha_blocks_1_def, unfolded rgl_trans.simps]

lemmas ha_blocks_2_case = arg_cong [where f = "\<lambda>p. rgl_case p s" for s, OF ha_blocks_2_def, unfolded rgl_case.simps]

lemmas ha_blocks_2_trans = arg_cong [where f = "\<lambda>p. rgl_trans p s" for s, OF ha_blocks_2_def, unfolded rgl_trans.simps]

lemmas ha_blocks_3_case = arg_cong [where f = "\<lambda>p. rgl_case p s" for s, OF ha_blocks_3_def, unfolded rgl_case.simps]

lemmas ha_blocks_3_trans = arg_cong [where f = "\<lambda>p. rgl_trans p s" for s, OF ha_blocks_3_def, unfolded rgl_trans.simps]

lemmas ha_blocks_4_case = arg_cong [where f = "\<lambda>p. rgl_case p s" for s, OF ha_blocks_4_def, unfolded rgl_case.simps]

lemmas ha_blocks_4_trans = arg_cong [where f = "\<lambda>p. rgl_trans p s" for s, OF ha_blocks_4_def, unfolded rgl_trans.simps]

lemmas ha_blocks_5_case = arg_cong [where f = "\<lambda>p. rgl_case p s" for s, OF ha_blocks_5_def, unfolded rgl_case.simps]

lemmas ha_blocks_5_trans = arg_cong [where f = "\<lambda>p. rgl_trans p s" for s, OF ha_blocks_5_def, unfolded rgl_trans.simps]

lemmas ha_blocks_6_case = arg_cong [where f = "\<lambda>p. rgl_case p s" for s, OF ha_blocks_6_def, unfolded rgl_case.simps]

lemmas ha_blocks_6_trans = arg_cong [where f = "\<lambda>p. rgl_trans p s" for s, OF ha_blocks_6_def, unfolded rgl_trans.simps]

lemmas ha_blocks_7_case = arg_cong [where f = "\<lambda>p. rgl_case p s" for s, OF ha_blocks_7_def, unfolded rgl_case.simps]

lemmas ha_blocks_7_trans = arg_cong [where f = "\<lambda>p. rgl_trans p s" for s, OF ha_blocks_7_def, unfolded rgl_trans.simps]

lemmas ha_blocks_8_case = arg_cong [where f = "\<lambda>p. rgl_case p s" for s, OF ha_blocks_8_def, unfolded rgl_case.simps]

lemmas ha_blocks_8_trans = arg_cong [where f = "\<lambda>p. rgl_trans p s" for s, OF ha_blocks_8_def, unfolded rgl_trans.simps]

lemmas ha_blocks_9_case = arg_cong [where f = "\<lambda>p. rgl_case p s" for s, OF ha_blocks_9_def, unfolded rgl_case.simps]

lemmas ha_blocks_9_trans = arg_cong [where f = "\<lambda>p. rgl_trans p s" for s, OF ha_blocks_9_def, unfolded rgl_trans.simps]

lemmas ha_blocks_10_case = arg_cong [where f = "\<lambda>p. rgl_case p s" for s, OF ha_blocks_10_def, unfolded rgl_case.simps]

lemmas ha_blocks_10_trans = arg_cong [where f = "\<lambda>p. rgl_trans p s" for s, OF ha_blocks_10_def, unfolded rgl_trans.simps]

lemmas ha_blocks_11_case = arg_cong [where f = "\<lambda>p. rgl_case p s" for s, OF ha_blocks_11_def, unfolded rgl_case.simps]

lemmas ha_blocks_11_trans = arg_cong [where f = "\<lambda>p. rgl_trans p s" for s, OF ha_blocks_11_def, unfolded rgl_trans.simps]

lemmas ha_blocks_12_case = arg_cong [where f = "\<lambda>p. rgl_case p s" for s, OF ha_blocks_12_def, unfolded rgl_case.simps]

lemmas ha_blocks_12_trans = arg_cong [where f = "\<lambda>p. rgl_trans p s" for s, OF ha_blocks_12_def, unfolded rgl_trans.simps]

lemmas ha_blocks_13_case = arg_cong [where f = "\<lambda>p. rgl_case p s" for s, OF ha_blocks_13_def, unfolded rgl_case.simps]

lemmas ha_blocks_13_trans = arg_cong [where f = "\<lambda>p. rgl_trans p s" for s, OF ha_blocks_13_def, unfolded rgl_trans.simps]

lemmas ha_blocks_14_case = arg_cong [where f = "\<lambda>p. rgl_case p s" for s, OF ha_blocks_14_def, unfolded rgl_case.simps]

lemmas ha_blocks_14_trans = arg_cong [where f = "\<lambda>p. rgl_trans p s" for s, OF ha_blocks_14_def, unfolded rgl_trans.simps]

lemmas ha_blocks_15_case = arg_cong [where f = "\<lambda>p. rgl_case p s" for s, OF ha_blocks_15_def, unfolded rgl_case.simps]

lemmas ha_blocks_15_trans = arg_cong [where f = "\<lambda>p. rgl_trans p s" for s, OF ha_blocks_15_def, unfolded rgl_trans.simps]

lemmas ha_blocks_16_case = arg_cong [where f = "\<lambda>p. rgl_case p s" for s, OF ha_blocks_16_def, unfolded rgl_case.simps]

lemmas ha_blocks_16_trans = arg_cong [where f = "\<lambda>p. rgl_trans p s" for s, OF ha_blocks_16_def, unfolded rgl_trans.simps]

lemmas ha_blocks_17_case = arg_cong [where f = "\<lambda>p. rgl_case p s" for s, OF ha_blocks_17_def, unfolded rgl_case.simps]

lemmas ha_blocks_17_trans = arg_cong [where f = "\<lambda>p. rgl_trans p s" for s, OF ha_blocks_17_def, unfolded rgl_trans.simps]

lemmas ha_blocks_18_case = arg_cong [where f = "\<lambda>p. rgl_case p s" for s, OF ha_blocks_18_def, unfolded rgl_case.simps]

lemmas ha_blocks_18_trans = arg_cong [where f = "\<lambda>p. rgl_trans p s" for s, OF ha_blocks_18_def, unfolded rgl_trans.simps]

lemmas ha_blocks_19_case = arg_cong [where f = "\<lambda>p. rgl_case p s" for s, OF ha_blocks_19_def, unfolded rgl_case.simps]

lemmas ha_blocks_19_trans = arg_cong [where f = "\<lambda>p. rgl_trans p s" for s, OF ha_blocks_19_def, unfolded rgl_trans.simps]

lemmas ha_blocks_20_case = arg_cong [where f = "\<lambda>p. rgl_case p s" for s, OF ha_blocks_20_def, unfolded rgl_case.simps]

lemmas ha_blocks_20_trans = arg_cong [where f = "\<lambda>p. rgl_trans p s" for s, OF ha_blocks_20_def, unfolded rgl_trans.simps]

lemmas ha_blocks_21_case = arg_cong [where f = "\<lambda>p. rgl_case p s" for s, OF ha_blocks_21_def, unfolded rgl_case.simps]

lemmas ha_blocks_21_trans = arg_cong [where f = "\<lambda>p. rgl_trans p s" for s, OF ha_blocks_21_def, unfolded rgl_trans.simps]

lemmas ha_blocks_22_case = arg_cong [where f = "\<lambda>p. rgl_case p s" for s, OF ha_blocks_22_def, unfolded rgl_case.simps]

lemmas ha_blocks_22_trans = arg_cong [where f = "\<lambda>p. rgl_trans p s" for s, OF ha_blocks_22_def, unfolded rgl_trans.simps]

lemmas ha_blocks_23_case = arg_cong [where f = "\<lambda>p. rgl_case p s" for s, OF ha_blocks_23_def, unfolded rgl_case.simps]

lemmas ha_blocks_23_trans = arg_cong [where f = "\<lambda>p. rgl_trans p s" for s, OF ha_blocks_23_def, unfolded rgl_trans.simps]

lemmas ha_blocks_24_case = arg_cong [where f = "\<lambda>p. rgl_case p s" for s, OF ha_blocks_24_def, unfolded rgl_case.simps]

lemmas ha_blocks_24_trans = arg_cong [where f = "\<lambda>p. rgl_trans p s" for s, OF ha_blocks_24_def, unfolded rgl_trans.simps]

lemmas ha_blocks_25_case = arg_cong [where f = "\<lambda>p. rgl_case p s" for s, OF ha_blocks_25_def, unfolded rgl_case.simps]

lemmas ha_blocks_25_trans = arg_cong [where f = "\<lambda>p. rgl_trans p s" for s, OF ha_blocks_25_def, unfolded rgl_trans.simps]

lemmas ha_blocks_26_case = arg_cong [where f = "\<lambda>p. rgl_case p s" for s, OF ha_blocks_26_def, unfolded rgl_case.simps]

lemmas ha_blocks_26_trans = arg_cong [where f = "\<lambda>p. rgl_trans p s" for s, OF ha_blocks_26_def, unfolded rgl_trans.simps]

lemmas ha_blocks_27_case = arg_cong [where f = "\<lambda>p. rgl_case p s" for s, OF ha_blocks_27_def, unfolded rgl_case.simps]

lemmas ha_blocks_27_trans = arg_cong [where f = "\<lambda>p. rgl_trans p s" for s, OF ha_blocks_27_def, unfolded rgl_trans.simps]

lemmas ha_blocks_28_case = arg_cong [where f = "\<lambda>p. rgl_case p s" for s, OF ha_blocks_28_def, unfolded rgl_case.simps]

lemmas ha_blocks_28_trans = arg_cong [where f = "\<lambda>p. rgl_trans p s" for s, OF ha_blocks_28_def, unfolded rgl_trans.simps]

lemmas ha_blocks_29_case = arg_cong [where f = "\<lambda>p. rgl_case p s" for s, OF ha_blocks_29_def, unfolded rgl_case.simps]

lemmas ha_blocks_29_trans = arg_cong [where f = "\<lambda>p. rgl_trans p s" for s, OF ha_blocks_29_def, unfolded rgl_trans.simps]

lemmas ha_blocks_30_case = arg_cong [where f = "\<lambda>p. rgl_case p s" for s, OF ha_blocks_30_def, unfolded rgl_case.simps]

lemmas ha_blocks_30_trans = arg_cong [where f = "\<lambda>p. rgl_trans p s" for s, OF ha_blocks_30_def, unfolded rgl_trans.simps]

lemmas ha_blocks_31_case = arg_cong [where f = "\<lambda>p. rgl_case p s" for s, OF ha_blocks_31_def, unfolded rgl_case.simps]

lemmas ha_blocks_31_trans = arg_cong [where f = "\<lambda>p. rgl_trans p s" for s, OF ha_blocks_31_def, unfolded rgl_trans.simps]

lemmas ha_blocks_32_case = arg_cong [where f = "\<lambda>p. rgl_case p s" for s, OF ha_blocks_32_def, unfolded rgl_case.simps]

lemmas ha_blocks_32_trans = arg_cong [where f = "\<lambda>p. rgl_trans p s" for s, OF ha_blocks_32_def, unfolded rgl_trans.simps]

lemmas ha_blocks_33_case = arg_cong [where f = "\<lambda>p. rgl_case p s" for s, OF ha_blocks_33_def, unfolded rgl_case.simps]

lemmas ha_blocks_33_trans = arg_cong [where f = "\<lambda>p. rgl_trans p s" for s, OF ha_blocks_33_def, unfolded rgl_trans.simps]

lemmas ha_blocks_34_case = arg_cong [where f = "\<lambda>p. rgl_case p s" for s, OF ha_blocks_34_def, unfolded rgl_case.simps]

lemmas ha_blocks_34_trans = arg_cong [where f = "\<lambda>p. rgl_trans p s" for s, OF ha_blocks_34_def, unfolded rgl_trans.simps]

lemmas ha_blocks_35_case = arg_cong [where f = "\<lambda>p. rgl_case p s" for s, OF ha_blocks_35_def, unfolded rgl_case.simps]

lemmas ha_blocks_35_trans = arg_cong [where f = "\<lambda>p. rgl_trans p s" for s, OF ha_blocks_35_def, unfolded rgl_trans.simps]

lemmas ha_blocks_36_case = arg_cong [where f = "\<lambda>p. rgl_case p s" for s, OF ha_blocks_36_def, unfolded rgl_case.simps]

lemmas ha_blocks_36_trans = arg_cong [where f = "\<lambda>p. rgl_trans p s" for s, OF ha_blocks_36_def, unfolded rgl_trans.simps]

lemmas ha_blocks_37_case = arg_cong [where f = "\<lambda>p. rgl_case p s" for s, OF ha_blocks_37_def, unfolded rgl_case.simps]

lemmas ha_blocks_37_trans = arg_cong [where f = "\<lambda>p. rgl_trans p s" for s, OF ha_blocks_37_def, unfolded rgl_trans.simps]

lemmas ha_blocks_38_case = arg_cong [where f = "\<lambda>p. rgl_case p s" for s, OF ha_blocks_38_def, unfolded rgl_case.simps]

lemmas ha_blocks_38_trans = arg_cong [where f = "\<lambda>p. rgl_trans p s" for s, OF ha_blocks_38_def, unfolded rgl_trans.simps]

lemmas ha_blocks_39_case = arg_cong [where f = "\<lambda>p. rgl_case p s" for s, OF ha_blocks_39_def, unfolded rgl_case.simps]

lemmas ha_blocks_39_trans = arg_cong [where f = "\<lambda>p. rgl_trans p s" for s, OF ha_blocks_39_def, unfolded rgl_trans.simps]

lemmas ha_blocks_40_case = arg_cong [where f = "\<lambda>p. rgl_case p s" for s, OF ha_blocks_40_def, unfolded rgl_case.simps]

lemmas ha_blocks_40_trans = arg_cong [where f = "\<lambda>p. rgl_trans p s" for s, OF ha_blocks_40_def, unfolded rgl_trans.simps]

lemmas ha_blocks_41_case = arg_cong [where f = "\<lambda>p. rgl_case p s" for s, OF ha_blocks_41_def, unfolded rgl_case.simps]

lemmas ha_blocks_41_trans = arg_cong [where f = "\<lambda>p. rgl_trans p s" for s, OF ha_blocks_41_def, unfolded rgl_trans.simps]

lemmas ha_blocks_42_case = arg_cong [where f = "\<lambda>p. rgl_case p s" for s, OF ha_blocks_42_def, unfolded rgl_case.simps]

lemmas ha_blocks_42_trans = arg_cong [where f = "\<lambda>p. rgl_trans p s" for s, OF ha_blocks_42_def, unfolded rgl_trans.simps]

lemmas ha_blocks_case =
  arg_cong [where f = "\<lambda>p. rgl_case p s" for s, OF ha_blocks_def, unfolded rgl_case_append]
  ha_blocks_1_case ha_blocks_2_case ha_blocks_3_case ha_blocks_4_case ha_blocks_5_case
  ha_blocks_6_case ha_blocks_7_case ha_blocks_8_case ha_blocks_9_case ha_blocks_10_case
  ha_blocks_11_case ha_blocks_12_case ha_blocks_13_case ha_blocks_14_case ha_blocks_15_case
  ha_blocks_16_case ha_blocks_17_case ha_blocks_18_case ha_blocks_19_case ha_blocks_20_case
  ha_blocks_21_case ha_blocks_22_case ha_blocks_23_case ha_blocks_24_case ha_blocks_25_case
  ha_blocks_26_case ha_blocks_27_case ha_blocks_28_case ha_blocks_29_case ha_blocks_30_case
  ha_blocks_31_case ha_blocks_32_case ha_blocks_33_case ha_blocks_34_case ha_blocks_35_case
  ha_blocks_36_case ha_blocks_37_case ha_blocks_38_case ha_blocks_39_case ha_blocks_40_case
  ha_blocks_41_case ha_blocks_42_case

lemmas ha_blocks_trans =
  arg_cong [where f = "\<lambda>p. rgl_trans p s" for s, OF ha_blocks_def, unfolded rgl_trans_append]
  ha_blocks_1_trans ha_blocks_2_trans ha_blocks_3_trans ha_blocks_4_trans ha_blocks_5_trans
  ha_blocks_6_trans ha_blocks_7_trans ha_blocks_8_trans ha_blocks_9_trans ha_blocks_10_trans
  ha_blocks_11_trans ha_blocks_12_trans ha_blocks_13_trans ha_blocks_14_trans ha_blocks_15_trans
  ha_blocks_16_trans ha_blocks_17_trans ha_blocks_18_trans ha_blocks_19_trans ha_blocks_20_trans
  ha_blocks_21_trans ha_blocks_22_trans ha_blocks_23_trans ha_blocks_24_trans ha_blocks_25_trans
  ha_blocks_26_trans ha_blocks_27_trans ha_blocks_28_trans ha_blocks_29_trans ha_blocks_30_trans
  ha_blocks_31_trans ha_blocks_32_trans ha_blocks_33_trans ha_blocks_34_trans ha_blocks_35_trans
  ha_blocks_36_trans ha_blocks_37_trans ha_blocks_38_trans ha_blocks_39_trans ha_blocks_40_trans
  ha_blocks_41_trans ha_blocks_42_trans

end
