(* ===== verification/Haproxy_Certificate_Expects.thy ===== *)
theory Haproxy_Certificate_Expects
  imports Haproxy_Automaton
begin

text \<open>
  The certificate for the scanner of ext/utils/haproxy_protocol.c: what the line and the
  prefixes that run its actions still expect in each state.
\<close>


definition ha_expects_1 :: certificate where
  "ha_expects_1 s =
     (if s = 1 then ([-128, 80, 81], [[[[Cat ha_start (Cat IPv4address (Ch 32 32))]], [[Cat
        ha_start (Cat IPv6address (Ch 32 32))]], [[Cat ha_start (Cat IPaddress ha_to_port)]],
        [[Cat ha_start (Cat IPaddress ha_to_end)]], [[ha_start]], [[Cat ha_start (Cat IPaddress
        ha_address2)]]]])
      else
      if s = 2 then ([-128, 82, 83], [[[[Cat (Ch 82 82) (Cat (Ch 79 79) (Cat (Ch 88 88) (Cat (Ch
        89 89) (Cat (Ch 32 32) (Cat (Ch 84 84) (Cat (Ch 67 67) (Cat (Ch 80 80) (Cat (Alt (Ch 52
        52) (Ch 54 54)) (Ch 32 32))))))))), Cat IPv4address (Ch 32 32)]], [[Cat (Ch 82 82) (Cat
        (Ch 79 79) (Cat (Ch 88 88) (Cat (Ch 89 89) (Cat (Ch 32 32) (Cat (Ch 84 84) (Cat (Ch 67 67)
        (Cat (Ch 80 80) (Cat (Alt (Ch 52 52) (Ch 54 54)) (Ch 32 32))))))))), Cat IPv6address (Ch
        32 32)]], [[Cat (Ch 82 82) (Cat (Ch 79 79) (Cat (Ch 88 88) (Cat (Ch 89 89) (Cat (Ch 32 32)
        (Cat (Ch 84 84) (Cat (Ch 67 67) (Cat (Ch 80 80) (Cat (Alt (Ch 52 52) (Ch 54 54)) (Ch 32
        32))))))))), Cat IPaddress ha_to_port]], [[Cat (Ch 82 82) (Cat (Ch 79 79) (Cat (Ch 88 88)
        (Cat (Ch 89 89) (Cat (Ch 32 32) (Cat (Ch 84 84) (Cat (Ch 67 67) (Cat (Ch 80 80) (Cat (Alt
        (Ch 52 52) (Ch 54 54)) (Ch 32 32))))))))), Cat IPaddress ha_to_end]], [[Cat (Ch 82 82)
        (Cat (Ch 79 79) (Cat (Ch 88 88) (Cat (Ch 89 89) (Cat (Ch 32 32) (Cat (Ch 84 84) (Cat (Ch
        67 67) (Cat (Ch 80 80) (Cat (Alt (Ch 52 52) (Ch 54 54)) (Ch 32 32)))))))))]], [[Cat (Ch 82
        82) (Cat (Ch 79 79) (Cat (Ch 88 88) (Cat (Ch 89 89) (Cat (Ch 32 32) (Cat (Ch 84 84) (Cat
        (Ch 67 67) (Cat (Ch 80 80) (Cat (Alt (Ch 52 52) (Ch 54 54)) (Ch 32 32))))))))), Cat
        IPaddress ha_address2]]]])
      else
      if s = 3 then ([-128, 79, 80], [[[[Cat (Ch 79 79) (Cat (Ch 88 88) (Cat (Ch 89 89) (Cat (Ch
        32 32) (Cat (Ch 84 84) (Cat (Ch 67 67) (Cat (Ch 80 80) (Cat (Alt (Ch 52 52) (Ch 54 54))
        (Ch 32 32)))))))), Cat IPv4address (Ch 32 32)]], [[Cat (Ch 79 79) (Cat (Ch 88 88) (Cat (Ch
        89 89) (Cat (Ch 32 32) (Cat (Ch 84 84) (Cat (Ch 67 67) (Cat (Ch 80 80) (Cat (Alt (Ch 52
        52) (Ch 54 54)) (Ch 32 32)))))))), Cat IPv6address (Ch 32 32)]], [[Cat (Ch 79 79) (Cat (Ch
        88 88) (Cat (Ch 89 89) (Cat (Ch 32 32) (Cat (Ch 84 84) (Cat (Ch 67 67) (Cat (Ch 80 80)
        (Cat (Alt (Ch 52 52) (Ch 54 54)) (Ch 32 32)))))))), Cat IPaddress ha_to_port]], [[Cat (Ch
        79 79) (Cat (Ch 88 88) (Cat (Ch 89 89) (Cat (Ch 32 32) (Cat (Ch 84 84) (Cat (Ch 67 67)
        (Cat (Ch 80 80) (Cat (Alt (Ch 52 52) (Ch 54 54)) (Ch 32 32)))))))), Cat IPaddress
        ha_to_end]], [[Cat (Ch 79 79) (Cat (Ch 88 88) (Cat (Ch 89 89) (Cat (Ch 32 32) (Cat (Ch 84
        84) (Cat (Ch 67 67) (Cat (Ch 80 80) (Cat (Alt (Ch 52 52) (Ch 54 54)) (Ch 32 32))))))))]],
        [[Cat (Ch 79 79) (Cat (Ch 88 88) (Cat (Ch 89 89) (Cat (Ch 32 32) (Cat (Ch 84 84) (Cat (Ch
        67 67) (Cat (Ch 80 80) (Cat (Alt (Ch 52 52) (Ch 54 54)) (Ch 32 32)))))))), Cat IPaddress
        ha_address2]]]])
      else
      if s = 4 then ([-128, 88, 89], [[[[Cat (Ch 88 88) (Cat (Ch 89 89) (Cat (Ch 32 32) (Cat (Ch
        84 84) (Cat (Ch 67 67) (Cat (Ch 80 80) (Cat (Alt (Ch 52 52) (Ch 54 54)) (Ch 32 32))))))),
        Cat IPv4address (Ch 32 32)]], [[Cat (Ch 88 88) (Cat (Ch 89 89) (Cat (Ch 32 32) (Cat (Ch 84
        84) (Cat (Ch 67 67) (Cat (Ch 80 80) (Cat (Alt (Ch 52 52) (Ch 54 54)) (Ch 32 32))))))), Cat
        IPv6address (Ch 32 32)]], [[Cat (Ch 88 88) (Cat (Ch 89 89) (Cat (Ch 32 32) (Cat (Ch 84 84)
        (Cat (Ch 67 67) (Cat (Ch 80 80) (Cat (Alt (Ch 52 52) (Ch 54 54)) (Ch 32 32))))))), Cat
        IPaddress ha_to_port]], [[Cat (Ch 88 88) (Cat (Ch 89 89) (Cat (Ch 32 32) (Cat (Ch 84 84)
        (Cat (Ch 67 67) (Cat (Ch 80 80) (Cat (Alt (Ch 52 52) (Ch 54 54)) (Ch 32 32))))))), Cat
        IPaddress ha_to_end]], [[Cat (Ch 88 88) (Cat (Ch 89 89) (Cat (Ch 32 32) (Cat (Ch 84 84)
        (Cat (Ch 67 67) (Cat (Ch 80 80) (Cat (Alt (Ch 52 52) (Ch 54 54)) (Ch 32 32)))))))]], [[Cat
        (Ch 88 88) (Cat (Ch 89 89) (Cat (Ch 32 32) (Cat (Ch 84 84) (Cat (Ch 67 67) (Cat (Ch 80 80)
        (Cat (Alt (Ch 52 52) (Ch 54 54)) (Ch 32 32))))))), Cat IPaddress ha_address2]]]])
      else
      if s = 5 then ([-128, 89, 90], [[[[Cat (Ch 89 89) (Cat (Ch 32 32) (Cat (Ch 84 84) (Cat (Ch
        67 67) (Cat (Ch 80 80) (Cat (Alt (Ch 52 52) (Ch 54 54)) (Ch 32 32)))))), Cat IPv4address
        (Ch 32 32)]], [[Cat (Ch 89 89) (Cat (Ch 32 32) (Cat (Ch 84 84) (Cat (Ch 67 67) (Cat (Ch 80
        80) (Cat (Alt (Ch 52 52) (Ch 54 54)) (Ch 32 32)))))), Cat IPv6address (Ch 32 32)]], [[Cat
        (Ch 89 89) (Cat (Ch 32 32) (Cat (Ch 84 84) (Cat (Ch 67 67) (Cat (Ch 80 80) (Cat (Alt (Ch
        52 52) (Ch 54 54)) (Ch 32 32)))))), Cat IPaddress ha_to_port]], [[Cat (Ch 89 89) (Cat (Ch
        32 32) (Cat (Ch 84 84) (Cat (Ch 67 67) (Cat (Ch 80 80) (Cat (Alt (Ch 52 52) (Ch 54 54))
        (Ch 32 32)))))), Cat IPaddress ha_to_end]], [[Cat (Ch 89 89) (Cat (Ch 32 32) (Cat (Ch 84
        84) (Cat (Ch 67 67) (Cat (Ch 80 80) (Cat (Alt (Ch 52 52) (Ch 54 54)) (Ch 32 32))))))]],
        [[Cat (Ch 89 89) (Cat (Ch 32 32) (Cat (Ch 84 84) (Cat (Ch 67 67) (Cat (Ch 80 80) (Cat (Alt
        (Ch 52 52) (Ch 54 54)) (Ch 32 32)))))), Cat IPaddress ha_address2]]]])
      else
      if s = 6 then ([-128, 32, 33], [[[[Cat (Ch 32 32) (Cat (Ch 84 84) (Cat (Ch 67 67) (Cat (Ch
        80 80) (Cat (Alt (Ch 52 52) (Ch 54 54)) (Ch 32 32))))), Cat IPv4address (Ch 32 32)]],
        [[Cat (Ch 32 32) (Cat (Ch 84 84) (Cat (Ch 67 67) (Cat (Ch 80 80) (Cat (Alt (Ch 52 52) (Ch
        54 54)) (Ch 32 32))))), Cat IPv6address (Ch 32 32)]], [[Cat (Ch 32 32) (Cat (Ch 84 84)
        (Cat (Ch 67 67) (Cat (Ch 80 80) (Cat (Alt (Ch 52 52) (Ch 54 54)) (Ch 32 32))))), Cat
        IPaddress ha_to_port]], [[Cat (Ch 32 32) (Cat (Ch 84 84) (Cat (Ch 67 67) (Cat (Ch 80 80)
        (Cat (Alt (Ch 52 52) (Ch 54 54)) (Ch 32 32))))), Cat IPaddress ha_to_end]], [[Cat (Ch 32
        32) (Cat (Ch 84 84) (Cat (Ch 67 67) (Cat (Ch 80 80) (Cat (Alt (Ch 52 52) (Ch 54 54)) (Ch
        32 32)))))]], [[Cat (Ch 32 32) (Cat (Ch 84 84) (Cat (Ch 67 67) (Cat (Ch 80 80) (Cat (Alt
        (Ch 52 52) (Ch 54 54)) (Ch 32 32))))), Cat IPaddress ha_address2]]]])
      else
      if s = 7 then ([-128, 84, 85], [[[[Cat (Ch 84 84) (Cat (Ch 67 67) (Cat (Ch 80 80) (Cat (Alt
        (Ch 52 52) (Ch 54 54)) (Ch 32 32)))), Cat IPv4address (Ch 32 32)]], [[Cat (Ch 84 84) (Cat
        (Ch 67 67) (Cat (Ch 80 80) (Cat (Alt (Ch 52 52) (Ch 54 54)) (Ch 32 32)))), Cat IPv6address
        (Ch 32 32)]], [[Cat (Ch 84 84) (Cat (Ch 67 67) (Cat (Ch 80 80) (Cat (Alt (Ch 52 52) (Ch 54
        54)) (Ch 32 32)))), Cat IPaddress ha_to_port]], [[Cat (Ch 84 84) (Cat (Ch 67 67) (Cat (Ch
        80 80) (Cat (Alt (Ch 52 52) (Ch 54 54)) (Ch 32 32)))), Cat IPaddress ha_to_end]], [[Cat
        (Ch 84 84) (Cat (Ch 67 67) (Cat (Ch 80 80) (Cat (Alt (Ch 52 52) (Ch 54 54)) (Ch 32
        32))))]], [[Cat (Ch 84 84) (Cat (Ch 67 67) (Cat (Ch 80 80) (Cat (Alt (Ch 52 52) (Ch 54
        54)) (Ch 32 32)))), Cat IPaddress ha_address2]]]])
      else
      ([-128, 67, 68], [[[[Cat (Ch 67 67) (Cat (Ch 80 80) (Cat (Alt (Ch 52 52) (Ch 54 54)) (Ch 32
        32))), Cat IPv4address (Ch 32 32)]], [[Cat (Ch 67 67) (Cat (Ch 80 80) (Cat (Alt (Ch 52 52)
        (Ch 54 54)) (Ch 32 32))), Cat IPv6address (Ch 32 32)]], [[Cat (Ch 67 67) (Cat (Ch 80 80)
        (Cat (Alt (Ch 52 52) (Ch 54 54)) (Ch 32 32))), Cat IPaddress ha_to_port]], [[Cat (Ch 67
        67) (Cat (Ch 80 80) (Cat (Alt (Ch 52 52) (Ch 54 54)) (Ch 32 32))), Cat IPaddress
        ha_to_end]], [[Cat (Ch 67 67) (Cat (Ch 80 80) (Cat (Alt (Ch 52 52) (Ch 54 54)) (Ch 32
        32)))]], [[Cat (Ch 67 67) (Cat (Ch 80 80) (Cat (Alt (Ch 52 52) (Ch 54 54)) (Ch 32 32))),
        Cat IPaddress ha_address2]]]]))"

definition ha_expects_2 :: certificate where
  "ha_expects_2 s =
     (if s = 9 then ([-128, 80, 81], [[[[Cat (Ch 80 80) (Cat (Alt (Ch 52 52) (Ch 54 54)) (Ch 32
        32)), Cat IPv4address (Ch 32 32)]], [[Cat (Ch 80 80) (Cat (Alt (Ch 52 52) (Ch 54 54)) (Ch
        32 32)), Cat IPv6address (Ch 32 32)]], [[Cat (Ch 80 80) (Cat (Alt (Ch 52 52) (Ch 54 54))
        (Ch 32 32)), Cat IPaddress ha_to_port]], [[Cat (Ch 80 80) (Cat (Alt (Ch 52 52) (Ch 54 54))
        (Ch 32 32)), Cat IPaddress ha_to_end]], [[Cat (Ch 80 80) (Cat (Alt (Ch 52 52) (Ch 54 54))
        (Ch 32 32))]], [[Cat (Ch 80 80) (Cat (Alt (Ch 52 52) (Ch 54 54)) (Ch 32 32)), Cat
        IPaddress ha_address2]]]])
      else
      if s = 10 then ([-128, 52, 53, 54, 55], [[[[Cat (Alt (Ch 52 52) (Ch 54 54)) (Ch 32 32), Cat
        IPv4address (Ch 32 32)]], [[Cat (Alt (Ch 52 52) (Ch 54 54)) (Ch 32 32), Cat IPv6address
        (Ch 32 32)]], [[Cat (Alt (Ch 52 52) (Ch 54 54)) (Ch 32 32), Cat IPaddress ha_to_port]],
        [[Cat (Alt (Ch 52 52) (Ch 54 54)) (Ch 32 32), Cat IPaddress ha_to_end]], [[Cat (Alt (Ch 52
        52) (Ch 54 54)) (Ch 32 32)]], [[Cat (Alt (Ch 52 52) (Ch 54 54)) (Ch 32 32), Cat IPaddress
        ha_address2]]]])
      else
      if s = 11 then ([-128, 32, 33], [[[[Ch 32 32, Cat IPv4address (Ch 32 32)]], [[Ch 32 32, Cat
        IPv6address (Ch 32 32)]], [[Ch 32 32, Cat IPaddress ha_to_port]], [[Ch 32 32, Cat
        IPaddress ha_to_end]], [[Ch 32 32]], [[Ch 32 32, Cat IPaddress ha_address2]]]])
      else
      if s = 12 then ([-128, 48, 49, 50, 51, 58, 59, 65, 71, 97, 103], [[[[Cat IPv4address (Ch 32
        32)]], [[Cat IPv6address (Ch 32 32)]], [[Cat IPaddress ha_to_port]], [[Cat IPaddress
        ha_to_end]], [[]], [[Cat IPaddress ha_address2]]]])
      else
      if s = 13 then ([-128, 46, 47, 48, 58, 59, 65, 71, 97, 103], [[[[Cat (Ch 46 46) (Cat
        dec_octet (Cat (Ch 46 46) (Cat dec_octet (Cat (Ch 46 46) dec_octet)))), Ch 32 32]], [[Rep
        0 3 HEXDIG, Ch 58 58, Rep 5 5 h16_colon, ls32, Ch 32 32], [Rep 0 3 HEXDIG, Cat dcolon (Cat
        (Rep 4 4 h16_colon) ls32), Ch 32 32], [Rep 0 3 HEXDIG, Cat dcolon (Cat (Rep 3 3 h16_colon)
        ls32), Ch 32 32], [Rep 0 3 HEXDIG, Ch 58 58, h16, Cat dcolon (Cat (Rep 3 3 h16_colon)
        ls32), Ch 32 32], [Rep 0 3 HEXDIG, Cat dcolon (Cat (Rep 2 2 h16_colon) ls32), Ch 32 32],
        [Rep 0 3 HEXDIG, Ch 58 58, Rep 0 1 h16_colon, h16, Cat dcolon (Cat (Rep 2 2 h16_colon)
        ls32), Ch 32 32], [Rep 0 3 HEXDIG, Cat dcolon (Cat h16_colon ls32), Ch 32 32], [Rep 0 3
        HEXDIG, Ch 58 58, Rep 0 2 h16_colon, h16, Cat dcolon (Cat h16_colon ls32), Ch 32 32], [Rep
        0 3 HEXDIG, Cat dcolon ls32, Ch 32 32], [Rep 0 3 HEXDIG, Ch 58 58, Rep 0 3 h16_colon, h16,
        Cat dcolon ls32, Ch 32 32], [Rep 0 3 HEXDIG, Cat dcolon h16, Ch 32 32], [Rep 0 3 HEXDIG,
        Ch 58 58, Rep 0 4 h16_colon, h16, Cat dcolon h16, Ch 32 32], [Rep 0 3 HEXDIG, dcolon, Ch
        32 32], [Rep 0 3 HEXDIG, Ch 58 58, Rep 0 5 h16_colon, h16, dcolon, Ch 32 32]], [[Cat (Ch
        46 46) (Cat dec_octet (Cat (Ch 46 46) (Cat dec_octet (Cat (Ch 46 46) dec_octet)))),
        ha_to_port], [Rep 0 3 HEXDIG, Ch 58 58, Rep 5 5 h16_colon, ls32, ha_to_port], [Rep 0 3
        HEXDIG, Cat dcolon (Cat (Rep 4 4 h16_colon) ls32), ha_to_port], [Rep 0 3 HEXDIG, Cat
        dcolon (Cat (Rep 3 3 h16_colon) ls32), ha_to_port], [Rep 0 3 HEXDIG, Ch 58 58, h16, Cat
        dcolon (Cat (Rep 3 3 h16_colon) ls32), ha_to_port], [Rep 0 3 HEXDIG, Cat dcolon (Cat (Rep
        2 2 h16_colon) ls32), ha_to_port], [Rep 0 3 HEXDIG, Ch 58 58, Rep 0 1 h16_colon, h16, Cat
        dcolon (Cat (Rep 2 2 h16_colon) ls32), ha_to_port], [Rep 0 3 HEXDIG, Cat dcolon (Cat
        h16_colon ls32), ha_to_port], [Rep 0 3 HEXDIG, Ch 58 58, Rep 0 2 h16_colon, h16, Cat
        dcolon (Cat h16_colon ls32), ha_to_port], [Rep 0 3 HEXDIG, Cat dcolon ls32, ha_to_port],
        [Rep 0 3 HEXDIG, Ch 58 58, Rep 0 3 h16_colon, h16, Cat dcolon ls32, ha_to_port], [Rep 0 3
        HEXDIG, Cat dcolon h16, ha_to_port], [Rep 0 3 HEXDIG, Ch 58 58, Rep 0 4 h16_colon, h16,
        Cat dcolon h16, ha_to_port], [Rep 0 3 HEXDIG, dcolon, ha_to_port], [Rep 0 3 HEXDIG, Ch 58
        58, Rep 0 5 h16_colon, h16, dcolon, ha_to_port]], [[Cat (Ch 46 46) (Cat dec_octet (Cat (Ch
        46 46) (Cat dec_octet (Cat (Ch 46 46) dec_octet)))), ha_to_end], [Rep 0 3 HEXDIG, Ch 58
        58, Rep 5 5 h16_colon, ls32, ha_to_end], [Rep 0 3 HEXDIG, Cat dcolon (Cat (Rep 4 4
        h16_colon) ls32), ha_to_end], [Rep 0 3 HEXDIG, Cat dcolon (Cat (Rep 3 3 h16_colon) ls32),
        ha_to_end], [Rep 0 3 HEXDIG, Ch 58 58, h16, Cat dcolon (Cat (Rep 3 3 h16_colon) ls32),
        ha_to_end], [Rep 0 3 HEXDIG, Cat dcolon (Cat (Rep 2 2 h16_colon) ls32), ha_to_end], [Rep 0
        3 HEXDIG, Ch 58 58, Rep 0 1 h16_colon, h16, Cat dcolon (Cat (Rep 2 2 h16_colon) ls32),
        ha_to_end], [Rep 0 3 HEXDIG, Cat dcolon (Cat h16_colon ls32), ha_to_end], [Rep 0 3 HEXDIG,
        Ch 58 58, Rep 0 2 h16_colon, h16, Cat dcolon (Cat h16_colon ls32), ha_to_end], [Rep 0 3
        HEXDIG, Cat dcolon ls32, ha_to_end], [Rep 0 3 HEXDIG, Ch 58 58, Rep 0 3 h16_colon, h16,
        Cat dcolon ls32, ha_to_end], [Rep 0 3 HEXDIG, Cat dcolon h16, ha_to_end], [Rep 0 3 HEXDIG,
        Ch 58 58, Rep 0 4 h16_colon, h16, Cat dcolon h16, ha_to_end], [Rep 0 3 HEXDIG, dcolon,
        ha_to_end], [Rep 0 3 HEXDIG, Ch 58 58, Rep 0 5 h16_colon, h16, dcolon, ha_to_end]], [],
        [[Cat (Ch 46 46) (Cat dec_octet (Cat (Ch 46 46) (Cat dec_octet (Cat (Ch 46 46)
        dec_octet)))), ha_address2], [Rep 0 3 HEXDIG, Ch 58 58, Rep 5 5 h16_colon, ls32,
        ha_address2], [Rep 0 3 HEXDIG, Cat dcolon (Cat (Rep 4 4 h16_colon) ls32), ha_address2],
        [Rep 0 3 HEXDIG, Cat dcolon (Cat (Rep 3 3 h16_colon) ls32), ha_address2], [Rep 0 3 HEXDIG,
        Ch 58 58, h16, Cat dcolon (Cat (Rep 3 3 h16_colon) ls32), ha_address2], [Rep 0 3 HEXDIG,
        Cat dcolon (Cat (Rep 2 2 h16_colon) ls32), ha_address2], [Rep 0 3 HEXDIG, Ch 58 58, Rep 0
        1 h16_colon, h16, Cat dcolon (Cat (Rep 2 2 h16_colon) ls32), ha_address2], [Rep 0 3
        HEXDIG, Cat dcolon (Cat h16_colon ls32), ha_address2], [Rep 0 3 HEXDIG, Ch 58 58, Rep 0 2
        h16_colon, h16, Cat dcolon (Cat h16_colon ls32), ha_address2], [Rep 0 3 HEXDIG, Cat dcolon
        ls32, ha_address2], [Rep 0 3 HEXDIG, Ch 58 58, Rep 0 3 h16_colon, h16, Cat dcolon ls32,
        ha_address2], [Rep 0 3 HEXDIG, Cat dcolon h16, ha_address2], [Rep 0 3 HEXDIG, Ch 58 58,
        Rep 0 4 h16_colon, h16, Cat dcolon h16, ha_address2], [Rep 0 3 HEXDIG, dcolon,
        ha_address2], [Rep 0 3 HEXDIG, Ch 58 58, Rep 0 5 h16_colon, h16, dcolon, ha_address2]]]])
      else
      if s = 14 then ([-128, 48, 49, 50, 51, 58], [[[[Cat dec_octet (Cat (Ch 46 46) (Cat dec_octet
        (Cat (Ch 46 46) dec_octet))), Ch 32 32]], [], [[Cat dec_octet (Cat (Ch 46 46) (Cat
        dec_octet (Cat (Ch 46 46) dec_octet))), ha_to_port]], [[Cat dec_octet (Cat (Ch 46 46) (Cat
        dec_octet (Cat (Ch 46 46) dec_octet))), ha_to_end]], [], [[Cat dec_octet (Cat (Ch 46 46)
        (Cat dec_octet (Cat (Ch 46 46) dec_octet))), ha_address2]]]])
      else
      if s = 15 then ([-128, 46, 47], [[[[Cat (Ch 46 46) (Cat dec_octet (Cat (Ch 46 46)
        dec_octet)), Ch 32 32]], [], [[Cat (Ch 46 46) (Cat dec_octet (Cat (Ch 46 46) dec_octet)),
        ha_to_port]], [[Cat (Ch 46 46) (Cat dec_octet (Cat (Ch 46 46) dec_octet)), ha_to_end]],
        [], [[Cat (Ch 46 46) (Cat dec_octet (Cat (Ch 46 46) dec_octet)), ha_address2]]]])
      else
      ([-128, 48, 49, 50, 51, 58], [[[[Cat dec_octet (Cat (Ch 46 46) dec_octet), Ch 32 32]], [],
        [[Cat dec_octet (Cat (Ch 46 46) dec_octet), ha_to_port]], [[Cat dec_octet (Cat (Ch 46 46)
        dec_octet), ha_to_end]], [], [[Cat dec_octet (Cat (Ch 46 46) dec_octet), ha_address2]]]]))"

definition ha_expects_3 :: certificate where
  "ha_expects_3 s =
     (if s = 17 then ([-128, 46, 47], [[[[Cat (Ch 46 46) dec_octet, Ch 32 32]], [], [[Cat (Ch 46
        46) dec_octet, ha_to_port]], [[Cat (Ch 46 46) dec_octet, ha_to_end]], [], [[Cat (Ch 46 46)
        dec_octet, ha_address2]]]])
      else
      if s = 18 then ([-128, 48, 49, 50, 51, 58], [[[[dec_octet, Ch 32 32]], [], [[dec_octet,
        ha_to_port]], [[dec_octet, ha_to_end]], [], [[dec_octet, ha_address2]]]])
      else
      if s = 19 then ([-128, 32, 33], [[[[Ch 32 32]], [], [[ha_to_port]], [[ha_to_end]], [],
        [[ha_address2]]]])
      else
      if s = 20 then ([-128, 48, 49, 50, 51, 58, 59, 65, 71, 97, 103], [[[], [[]], [[Cat IPaddress
        (Cat (Ch 32 32) port)]], [[Cat IPaddress (Cat (Ch 32 32) (Cat port ha_end))]], [], [[Cat
        IPaddress (Ch 32 32)]]], [[[]], [], [[Cat IPaddress (Cat (Ch 32 32) port)]], [[Cat
        IPaddress (Cat (Ch 32 32) (Cat port ha_end))]], [], [[Cat IPaddress (Ch 32 32)]]]])
      else
      if s = 21 then ([-128, 46, 47, 48, 58, 59, 65, 71, 97, 103], [[[], [], [[Cat (Ch 46 46) (Cat
        dec_octet (Cat (Ch 46 46) (Cat dec_octet (Cat (Ch 46 46) dec_octet)))), Cat (Ch 32 32)
        port], [Rep 0 3 HEXDIG, Ch 58 58, Rep 5 5 h16_colon, ls32, Cat (Ch 32 32) port], [Rep 0 3
        HEXDIG, Cat dcolon (Cat (Rep 4 4 h16_colon) ls32), Cat (Ch 32 32) port], [Rep 0 3 HEXDIG,
        Cat dcolon (Cat (Rep 3 3 h16_colon) ls32), Cat (Ch 32 32) port], [Rep 0 3 HEXDIG, Ch 58
        58, h16, Cat dcolon (Cat (Rep 3 3 h16_colon) ls32), Cat (Ch 32 32) port], [Rep 0 3 HEXDIG,
        Cat dcolon (Cat (Rep 2 2 h16_colon) ls32), Cat (Ch 32 32) port], [Rep 0 3 HEXDIG, Ch 58
        58, Rep 0 1 h16_colon, h16, Cat dcolon (Cat (Rep 2 2 h16_colon) ls32), Cat (Ch 32 32)
        port], [Rep 0 3 HEXDIG, Cat dcolon (Cat h16_colon ls32), Cat (Ch 32 32) port], [Rep 0 3
        HEXDIG, Ch 58 58, Rep 0 2 h16_colon, h16, Cat dcolon (Cat h16_colon ls32), Cat (Ch 32 32)
        port], [Rep 0 3 HEXDIG, Cat dcolon ls32, Cat (Ch 32 32) port], [Rep 0 3 HEXDIG, Ch 58 58,
        Rep 0 3 h16_colon, h16, Cat dcolon ls32, Cat (Ch 32 32) port], [Rep 0 3 HEXDIG, Cat dcolon
        h16, Cat (Ch 32 32) port], [Rep 0 3 HEXDIG, Ch 58 58, Rep 0 4 h16_colon, h16, Cat dcolon
        h16, Cat (Ch 32 32) port], [Rep 0 3 HEXDIG, dcolon, Cat (Ch 32 32) port], [Rep 0 3 HEXDIG,
        Ch 58 58, Rep 0 5 h16_colon, h16, dcolon, Cat (Ch 32 32) port]], [[Cat (Ch 46 46) (Cat
        dec_octet (Cat (Ch 46 46) (Cat dec_octet (Cat (Ch 46 46) dec_octet)))), Cat (Ch 32 32)
        (Cat port ha_end)], [Rep 0 3 HEXDIG, Ch 58 58, Rep 5 5 h16_colon, ls32, Cat (Ch 32 32)
        (Cat port ha_end)], [Rep 0 3 HEXDIG, Cat dcolon (Cat (Rep 4 4 h16_colon) ls32), Cat (Ch 32
        32) (Cat port ha_end)], [Rep 0 3 HEXDIG, Cat dcolon (Cat (Rep 3 3 h16_colon) ls32), Cat
        (Ch 32 32) (Cat port ha_end)], [Rep 0 3 HEXDIG, Ch 58 58, h16, Cat dcolon (Cat (Rep 3 3
        h16_colon) ls32), Cat (Ch 32 32) (Cat port ha_end)], [Rep 0 3 HEXDIG, Cat dcolon (Cat (Rep
        2 2 h16_colon) ls32), Cat (Ch 32 32) (Cat port ha_end)], [Rep 0 3 HEXDIG, Ch 58 58, Rep 0
        1 h16_colon, h16, Cat dcolon (Cat (Rep 2 2 h16_colon) ls32), Cat (Ch 32 32) (Cat port
        ha_end)], [Rep 0 3 HEXDIG, Cat dcolon (Cat h16_colon ls32), Cat (Ch 32 32) (Cat port
        ha_end)], [Rep 0 3 HEXDIG, Ch 58 58, Rep 0 2 h16_colon, h16, Cat dcolon (Cat h16_colon
        ls32), Cat (Ch 32 32) (Cat port ha_end)], [Rep 0 3 HEXDIG, Cat dcolon ls32, Cat (Ch 32 32)
        (Cat port ha_end)], [Rep 0 3 HEXDIG, Ch 58 58, Rep 0 3 h16_colon, h16, Cat dcolon ls32,
        Cat (Ch 32 32) (Cat port ha_end)], [Rep 0 3 HEXDIG, Cat dcolon h16, Cat (Ch 32 32) (Cat
        port ha_end)], [Rep 0 3 HEXDIG, Ch 58 58, Rep 0 4 h16_colon, h16, Cat dcolon h16, Cat (Ch
        32 32) (Cat port ha_end)], [Rep 0 3 HEXDIG, dcolon, Cat (Ch 32 32) (Cat port ha_end)],
        [Rep 0 3 HEXDIG, Ch 58 58, Rep 0 5 h16_colon, h16, dcolon, Cat (Ch 32 32) (Cat port
        ha_end)]], [], [[Cat (Ch 46 46) (Cat dec_octet (Cat (Ch 46 46) (Cat dec_octet (Cat (Ch 46
        46) dec_octet)))), Ch 32 32], [Rep 0 3 HEXDIG, Ch 58 58, Rep 5 5 h16_colon, ls32, Ch 32
        32], [Rep 0 3 HEXDIG, Cat dcolon (Cat (Rep 4 4 h16_colon) ls32), Ch 32 32], [Rep 0 3
        HEXDIG, Cat dcolon (Cat (Rep 3 3 h16_colon) ls32), Ch 32 32], [Rep 0 3 HEXDIG, Ch 58 58,
        h16, Cat dcolon (Cat (Rep 3 3 h16_colon) ls32), Ch 32 32], [Rep 0 3 HEXDIG, Cat dcolon
        (Cat (Rep 2 2 h16_colon) ls32), Ch 32 32], [Rep 0 3 HEXDIG, Ch 58 58, Rep 0 1 h16_colon,
        h16, Cat dcolon (Cat (Rep 2 2 h16_colon) ls32), Ch 32 32], [Rep 0 3 HEXDIG, Cat dcolon
        (Cat h16_colon ls32), Ch 32 32], [Rep 0 3 HEXDIG, Ch 58 58, Rep 0 2 h16_colon, h16, Cat
        dcolon (Cat h16_colon ls32), Ch 32 32], [Rep 0 3 HEXDIG, Cat dcolon ls32, Ch 32 32], [Rep
        0 3 HEXDIG, Ch 58 58, Rep 0 3 h16_colon, h16, Cat dcolon ls32, Ch 32 32], [Rep 0 3 HEXDIG,
        Cat dcolon h16, Ch 32 32], [Rep 0 3 HEXDIG, Ch 58 58, Rep 0 4 h16_colon, h16, Cat dcolon
        h16, Ch 32 32], [Rep 0 3 HEXDIG, dcolon, Ch 32 32], [Rep 0 3 HEXDIG, Ch 58 58, Rep 0 5
        h16_colon, h16, dcolon, Ch 32 32]]]])
      else
      if s = 22 then ([-128, 48, 49, 50, 51, 58], [[[], [], [[Cat dec_octet (Cat (Ch 46 46) (Cat
        dec_octet (Cat (Ch 46 46) dec_octet))), Cat (Ch 32 32) port]], [[Cat dec_octet (Cat (Ch 46
        46) (Cat dec_octet (Cat (Ch 46 46) dec_octet))), Cat (Ch 32 32) (Cat port ha_end)]], [],
        [[Cat dec_octet (Cat (Ch 46 46) (Cat dec_octet (Cat (Ch 46 46) dec_octet))), Ch 32 32]]]])
      else
      if s = 23 then ([-128, 46, 47], [[[], [], [[Cat (Ch 46 46) (Cat dec_octet (Cat (Ch 46 46)
        dec_octet)), Cat (Ch 32 32) port]], [[Cat (Ch 46 46) (Cat dec_octet (Cat (Ch 46 46)
        dec_octet)), Cat (Ch 32 32) (Cat port ha_end)]], [], [[Cat (Ch 46 46) (Cat dec_octet (Cat
        (Ch 46 46) dec_octet)), Ch 32 32]]]])
      else
      ([-128, 48, 49, 50, 51, 58], [[[], [], [[Cat dec_octet (Cat (Ch 46 46) dec_octet), Cat (Ch
        32 32) port]], [[Cat dec_octet (Cat (Ch 46 46) dec_octet), Cat (Ch 32 32) (Cat port
        ha_end)]], [], [[Cat dec_octet (Cat (Ch 46 46) dec_octet), Ch 32 32]]]]))"

definition ha_expects_4 :: certificate where
  "ha_expects_4 s =
     (if s = 25 then ([-128, 46, 47], [[[], [], [[Cat (Ch 46 46) dec_octet, Cat (Ch 32 32) port]],
        [[Cat (Ch 46 46) dec_octet, Cat (Ch 32 32) (Cat port ha_end)]], [], [[Cat (Ch 46 46)
        dec_octet, Ch 32 32]]]])
      else
      if s = 26 then ([-128, 48, 49, 50, 51, 58], [[[], [], [[dec_octet, Cat (Ch 32 32) port]],
        [[dec_octet, Cat (Ch 32 32) (Cat port ha_end)]], [], [[dec_octet, Ch 32 32]]]])
      else
      if s = 27 then ([-128, 32, 33], [[[], [], [[Cat (Ch 32 32) port]], [[Cat (Ch 32 32) (Cat
        port ha_end)]], [], [[Ch 32 32]]]])
      else
      if s = 28 then ([-128, 48, 49, 54, 55, 58], [[[], [], [[port]], [[Cat port ha_end]], [],
        [[]]]])
      else
      if s = 29 then ([-128, 48, 49, 58], [[[], [], [[Cat (Ch 49 57) (Rep 0 2 DIGIT)], [Cat (Ch 48
        48) (Cat (Ch 49 57) (Rep 0 1 DIGIT))], [Cat (Ch 48 48) (Cat (Ch 48 48) (Ch 49 57))]],
        [[Cat (Ch 49 57) (Rep 0 2 DIGIT), ha_end], [Cat (Ch 48 48) (Cat (Ch 49 57) (Rep 0 1
        DIGIT)), ha_end], [Cat (Ch 48 48) (Cat (Ch 48 48) (Ch 49 57)), ha_end]], [], []]])
      else
      if s = 30 then ([-128, 48, 49, 58], [[[], [], [[Cat (Ch 49 57) (Rep 0 1 DIGIT)], [Cat (Ch 48
        48) (Ch 49 57)]], [[Cat (Ch 49 57) (Rep 0 1 DIGIT), ha_end], [Cat (Ch 48 48) (Ch 49 57),
        ha_end]], [], []]])
      else
      if s = 31 then ([-128, 49, 58], [[[], [], [[Ch 49 57]], [[Ch 49 57, ha_end]], [], []]])
      else
      ([-128, 32, 33], [[[], [], [[]], [[ha_end]], [], []]]))"

definition ha_expects_5 :: certificate where
  "ha_expects_5 s =
     (if s = 33 then ([-128, 48, 49, 54, 55, 58], [[[], [], [], [[Cat port (Cat (Ch 13 13) (Ch 10
        10))]], [], []]])
      else
      if s = 34 then ([-128, 48, 49, 58], [[[], [], [], [[Cat (Ch 49 57) (Rep 0 2 DIGIT), Cat (Ch
        13 13) (Ch 10 10)], [Cat (Ch 48 48) (Cat (Ch 49 57) (Rep 0 1 DIGIT)), Cat (Ch 13 13) (Ch
        10 10)], [Cat (Ch 48 48) (Cat (Ch 48 48) (Ch 49 57)), Cat (Ch 13 13) (Ch 10 10)]], [],
        []]])
      else
      if s = 35 then ([-128, 48, 49, 58], [[[], [], [], [[Cat (Ch 49 57) (Rep 0 1 DIGIT), Cat (Ch
        13 13) (Ch 10 10)], [Cat (Ch 48 48) (Ch 49 57), Cat (Ch 13 13) (Ch 10 10)]], [], []]])
      else
      if s = 36 then ([-128, 49, 58], [[[], [], [], [[Ch 49 57, Cat (Ch 13 13) (Ch 10 10)]], [],
        []]])
      else
      if s = 37 then ([-128, 13, 14], [[[], [], [], [[Cat (Ch 13 13) (Ch 10 10)]], [], []]])
      else
      if s = 38 then ([-128, 10, 11], [[[], [], [], [[Ch 10 10]], [], []]])
      else
      if s = 39 then ([-128, 13, 14, 48, 58], [[[], [], [], [[Rep 0 1 DIGIT, Cat (Ch 13 13) (Ch 10
        10)]], [], []], [[], [], [], [[Cat (Ch 13 13) (Ch 10 10)], [DIGIT, Cat (Ch 13 13) (Ch 10
        10)]], [], []]])
      else
      ([-128, 13, 14, 48, 58], [[[], [], [], [[Rep 0 2 DIGIT, Cat (Ch 13 13) (Ch 10 10)]], [],
        []], [[], [], [], [[Rep 0 1 DIGIT, Cat (Ch 13 13) (Ch 10 10)], [Rep 2 2 DIGIT, Cat (Ch 13
        13) (Ch 10 10)]], [], []]]))"

definition ha_expects_6 :: certificate where
  "ha_expects_6 s =
     (if s = 41 then ([-128, 13, 14, 48, 58], [[[], [], [], [[Rep 0 3 DIGIT, Cat (Ch 13 13) (Ch 10
        10)], [Rep 4 4 DIGIT, Cat (Ch 13 13) (Ch 10 10)]], [], []]])
      else
      if s = 42 then ([-128, 13, 14, 48, 58], [[[], [], [], [[Rep 0 3 DIGIT, Cat (Ch 13 13) (Ch 10
        10)]], [], []], [[], [], [], [[Rep 0 2 DIGIT, Cat (Ch 13 13) (Ch 10 10)], [Rep 3 3 DIGIT,
        Cat (Ch 13 13) (Ch 10 10)]], [], []]])
      else
      if s = 43 then ([-128, 13, 14, 48, 53, 54, 58], [[[], [], [], [[Rep 0 3 DIGIT, Cat (Ch 13
        13) (Ch 10 10)], [Cat (Ch 48 52) (Rep 3 3 DIGIT), Cat (Ch 13 13) (Ch 10 10)], [Cat (Ch 53
        53) (Cat (Ch 48 52) (Rep 2 2 DIGIT)), Cat (Ch 13 13) (Ch 10 10)], [Cat (Ch 53 53) (Cat (Ch
        53 53) (Cat (Ch 48 50) DIGIT)), Cat (Ch 13 13) (Ch 10 10)], [Cat (Ch 53 53) (Cat (Ch 53
        53) (Cat (Ch 51 51) (Ch 48 53))), Cat (Ch 13 13) (Ch 10 10)]], [], []]])
      else
      if s = 44 then ([-128, 13, 14, 48, 53, 54, 58], [[[], [], [], [[Rep 0 2 DIGIT, Cat (Ch 13
        13) (Ch 10 10)], [Cat (Ch 48 52) (Rep 2 2 DIGIT), Cat (Ch 13 13) (Ch 10 10)], [Cat (Ch 53
        53) (Cat (Ch 48 50) DIGIT), Cat (Ch 13 13) (Ch 10 10)], [Cat (Ch 53 53) (Cat (Ch 51 51)
        (Ch 48 53)), Cat (Ch 13 13) (Ch 10 10)]], [], []]])
      else
      if s = 45 then ([-128, 13, 14, 48, 51, 52, 58], [[[], [], [], [[Rep 0 1 DIGIT, Cat (Ch 13
        13) (Ch 10 10)], [Cat (Ch 48 50) DIGIT, Cat (Ch 13 13) (Ch 10 10)], [Cat (Ch 51 51) (Ch 48
        53), Cat (Ch 13 13) (Ch 10 10)]], [], []]])
      else
      if s = 46 then ([-128, 13, 14, 48, 54], [[[], [], [], [[Cat (Ch 13 13) (Ch 10 10)], [Ch 48
        53, Cat (Ch 13 13) (Ch 10 10)]], [], []]])
      else
      if s = 47 then ([-128, 32, 33, 48, 58], [[[], [], [[Rep 0 1 DIGIT]], [[Rep 0 1 DIGIT,
        ha_end]], [], []], [[], [], [[], [DIGIT]], [[ha_end], [DIGIT, ha_end]], [], []]])
      else
      ([-128, 32, 33, 48, 58], [[[], [], [[Rep 0 2 DIGIT]], [[Rep 0 2 DIGIT, ha_end]], [], []],
        [[], [], [[Rep 0 1 DIGIT], [Rep 2 2 DIGIT]], [[Rep 0 1 DIGIT, ha_end], [Rep 2 2 DIGIT,
        ha_end]], [], []]]))"

definition ha_expects_7 :: certificate where
  "ha_expects_7 s =
     (if s = 49 then ([-128, 32, 33, 48, 58], [[[], [], [[Rep 0 3 DIGIT], [Rep 4 4 DIGIT]], [[Rep
        0 3 DIGIT, ha_end], [Rep 4 4 DIGIT, ha_end]], [], []]])
      else
      if s = 50 then ([-128, 32, 33, 48, 58], [[[], [], [[Rep 0 3 DIGIT]], [[Rep 0 3 DIGIT,
        ha_end]], [], []], [[], [], [[Rep 0 2 DIGIT], [Rep 3 3 DIGIT]], [[Rep 0 2 DIGIT, ha_end],
        [Rep 3 3 DIGIT, ha_end]], [], []]])
      else
      if s = 51 then ([-128, 32, 33, 48, 53, 54, 58], [[[], [], [[Rep 0 3 DIGIT], [Cat (Ch 48 52)
        (Rep 3 3 DIGIT)], [Cat (Ch 53 53) (Cat (Ch 48 52) (Rep 2 2 DIGIT))], [Cat (Ch 53 53) (Cat
        (Ch 53 53) (Cat (Ch 48 50) DIGIT))], [Cat (Ch 53 53) (Cat (Ch 53 53) (Cat (Ch 51 51) (Ch
        48 53)))]], [[Rep 0 3 DIGIT, ha_end], [Cat (Ch 48 52) (Rep 3 3 DIGIT), ha_end], [Cat (Ch
        53 53) (Cat (Ch 48 52) (Rep 2 2 DIGIT)), ha_end], [Cat (Ch 53 53) (Cat (Ch 53 53) (Cat (Ch
        48 50) DIGIT)), ha_end], [Cat (Ch 53 53) (Cat (Ch 53 53) (Cat (Ch 51 51) (Ch 48 53))),
        ha_end]], [], []]])
      else
      if s = 52 then ([-128, 32, 33, 48, 53, 54, 58], [[[], [], [[Rep 0 2 DIGIT], [Cat (Ch 48 52)
        (Rep 2 2 DIGIT)], [Cat (Ch 53 53) (Cat (Ch 48 50) DIGIT)], [Cat (Ch 53 53) (Cat (Ch 51 51)
        (Ch 48 53))]], [[Rep 0 2 DIGIT, ha_end], [Cat (Ch 48 52) (Rep 2 2 DIGIT), ha_end], [Cat
        (Ch 53 53) (Cat (Ch 48 50) DIGIT), ha_end], [Cat (Ch 53 53) (Cat (Ch 51 51) (Ch 48 53)),
        ha_end]], [], []]])
      else
      if s = 53 then ([-128, 32, 33, 48, 51, 52, 58], [[[], [], [[Rep 0 1 DIGIT], [Cat (Ch 48 50)
        DIGIT], [Cat (Ch 51 51) (Ch 48 53)]], [[Rep 0 1 DIGIT, ha_end], [Cat (Ch 48 50) DIGIT,
        ha_end], [Cat (Ch 51 51) (Ch 48 53), ha_end]], [], []]])
      else
      if s = 54 then ([-128, 32, 33, 48, 54], [[[], [], [[], [Ch 48 53]], [[ha_end], [Ch 48 53,
        ha_end]], [], []]])
      else
      if s = 55 then ([-128, 32, 33, 48, 58], [[[], [], [[Cat (Ch 32 32) port], [DIGIT, Cat (Ch 32
        32) port], [Rep 2 2 DIGIT, Cat (Ch 32 32) port]], [[Cat (Ch 32 32) (Cat port ha_end)],
        [DIGIT, Cat (Ch 32 32) (Cat port ha_end)], [Rep 2 2 DIGIT, Cat (Ch 32 32) (Cat port
        ha_end)]], [], [[Ch 32 32], [DIGIT, Ch 32 32], [Rep 2 2 DIGIT, Ch 32 32]]]])
      else
      ([-128, 32, 33, 48, 58], [[[], [], [[Cat (Ch 32 32) port], [DIGIT, Cat (Ch 32 32) port]],
        [[Cat (Ch 32 32) (Cat port ha_end)], [DIGIT, Cat (Ch 32 32) (Cat port ha_end)]], [], [[Ch
        32 32], [DIGIT, Ch 32 32]]]]))"

definition ha_expects_8 :: certificate where
  "ha_expects_8 s =
     (if s = 57 then ([-128, 32, 33, 48, 53, 54, 58], [[[], [], [[Cat (Ch 32 32) port], [DIGIT,
        Cat (Ch 32 32) port], [Cat (Ch 48 52) DIGIT, Cat (Ch 32 32) port], [Cat (Ch 53 53) (Ch 48
        53), Cat (Ch 32 32) port]], [[Cat (Ch 32 32) (Cat port ha_end)], [DIGIT, Cat (Ch 32 32)
        (Cat port ha_end)], [Cat (Ch 48 52) DIGIT, Cat (Ch 32 32) (Cat port ha_end)], [Cat (Ch 53
        53) (Ch 48 53), Cat (Ch 32 32) (Cat port ha_end)]], [], [[Ch 32 32], [DIGIT, Ch 32 32],
        [Cat (Ch 48 52) DIGIT, Ch 32 32], [Cat (Ch 53 53) (Ch 48 53), Ch 32 32]]]])
      else
      if s = 58 then ([-128, 32, 33, 48, 54], [[[], [], [[Cat (Ch 32 32) port], [Ch 48 53, Cat (Ch
        32 32) port]], [[Cat (Ch 32 32) (Cat port ha_end)], [Ch 48 53, Cat (Ch 32 32) (Cat port
        ha_end)]], [], [[Ch 32 32], [Ch 48 53, Ch 32 32]]]])
      else
      if s = 59 then ([-128, 46, 47, 48, 58], [[[], [], [[Cat (Ch 46 46) dec_octet, Cat (Ch 32 32)
        port], [DIGIT, Cat (Ch 46 46) dec_octet, Cat (Ch 32 32) port], [Rep 2 2 DIGIT, Cat (Ch 46
        46) dec_octet, Cat (Ch 32 32) port]], [[Cat (Ch 46 46) dec_octet, Cat (Ch 32 32) (Cat port
        ha_end)], [DIGIT, Cat (Ch 46 46) dec_octet, Cat (Ch 32 32) (Cat port ha_end)], [Rep 2 2
        DIGIT, Cat (Ch 46 46) dec_octet, Cat (Ch 32 32) (Cat port ha_end)]], [], [[Cat (Ch 46 46)
        dec_octet, Ch 32 32], [DIGIT, Cat (Ch 46 46) dec_octet, Ch 32 32], [Rep 2 2 DIGIT, Cat (Ch
        46 46) dec_octet, Ch 32 32]]]])
      else
      if s = 60 then ([-128, 46, 47, 48, 58], [[[], [], [[Cat (Ch 46 46) dec_octet, Cat (Ch 32 32)
        port], [DIGIT, Cat (Ch 46 46) dec_octet, Cat (Ch 32 32) port]], [[Cat (Ch 46 46)
        dec_octet, Cat (Ch 32 32) (Cat port ha_end)], [DIGIT, Cat (Ch 46 46) dec_octet, Cat (Ch 32
        32) (Cat port ha_end)]], [], [[Cat (Ch 46 46) dec_octet, Ch 32 32], [DIGIT, Cat (Ch 46 46)
        dec_octet, Ch 32 32]]]])
      else
      if s = 61 then ([-128, 46, 47, 48, 53, 54, 58], [[[], [], [[Cat (Ch 46 46) dec_octet, Cat
        (Ch 32 32) port], [DIGIT, Cat (Ch 46 46) dec_octet, Cat (Ch 32 32) port], [Cat (Ch 48 52)
        DIGIT, Cat (Ch 46 46) dec_octet, Cat (Ch 32 32) port], [Cat (Ch 53 53) (Ch 48 53), Cat (Ch
        46 46) dec_octet, Cat (Ch 32 32) port]], [[Cat (Ch 46 46) dec_octet, Cat (Ch 32 32) (Cat
        port ha_end)], [DIGIT, Cat (Ch 46 46) dec_octet, Cat (Ch 32 32) (Cat port ha_end)], [Cat
        (Ch 48 52) DIGIT, Cat (Ch 46 46) dec_octet, Cat (Ch 32 32) (Cat port ha_end)], [Cat (Ch 53
        53) (Ch 48 53), Cat (Ch 46 46) dec_octet, Cat (Ch 32 32) (Cat port ha_end)]], [], [[Cat
        (Ch 46 46) dec_octet, Ch 32 32], [DIGIT, Cat (Ch 46 46) dec_octet, Ch 32 32], [Cat (Ch 48
        52) DIGIT, Cat (Ch 46 46) dec_octet, Ch 32 32], [Cat (Ch 53 53) (Ch 48 53), Cat (Ch 46 46)
        dec_octet, Ch 32 32]]]])
      else
      if s = 62 then ([-128, 46, 47, 48, 54], [[[], [], [[Cat (Ch 46 46) dec_octet, Cat (Ch 32 32)
        port], [Ch 48 53, Cat (Ch 46 46) dec_octet, Cat (Ch 32 32) port]], [[Cat (Ch 46 46)
        dec_octet, Cat (Ch 32 32) (Cat port ha_end)], [Ch 48 53, Cat (Ch 46 46) dec_octet, Cat (Ch
        32 32) (Cat port ha_end)]], [], [[Cat (Ch 46 46) dec_octet, Ch 32 32], [Ch 48 53, Cat (Ch
        46 46) dec_octet, Ch 32 32]]]])
      else
      if s = 63 then ([-128, 46, 47, 48, 58], [[[], [], [[Cat (Ch 46 46) (Cat dec_octet (Cat (Ch
        46 46) dec_octet)), Cat (Ch 32 32) port], [DIGIT, Cat (Ch 46 46) (Cat dec_octet (Cat (Ch
        46 46) dec_octet)), Cat (Ch 32 32) port], [Rep 2 2 DIGIT, Cat (Ch 46 46) (Cat dec_octet
        (Cat (Ch 46 46) dec_octet)), Cat (Ch 32 32) port]], [[Cat (Ch 46 46) (Cat dec_octet (Cat
        (Ch 46 46) dec_octet)), Cat (Ch 32 32) (Cat port ha_end)], [DIGIT, Cat (Ch 46 46) (Cat
        dec_octet (Cat (Ch 46 46) dec_octet)), Cat (Ch 32 32) (Cat port ha_end)], [Rep 2 2 DIGIT,
        Cat (Ch 46 46) (Cat dec_octet (Cat (Ch 46 46) dec_octet)), Cat (Ch 32 32) (Cat port
        ha_end)]], [], [[Cat (Ch 46 46) (Cat dec_octet (Cat (Ch 46 46) dec_octet)), Ch 32 32],
        [DIGIT, Cat (Ch 46 46) (Cat dec_octet (Cat (Ch 46 46) dec_octet)), Ch 32 32], [Rep 2 2
        DIGIT, Cat (Ch 46 46) (Cat dec_octet (Cat (Ch 46 46) dec_octet)), Ch 32 32]]]])
      else
      ([-128, 46, 47, 48, 58], [[[], [], [[Cat (Ch 46 46) (Cat dec_octet (Cat (Ch 46 46)
        dec_octet)), Cat (Ch 32 32) port], [DIGIT, Cat (Ch 46 46) (Cat dec_octet (Cat (Ch 46 46)
        dec_octet)), Cat (Ch 32 32) port]], [[Cat (Ch 46 46) (Cat dec_octet (Cat (Ch 46 46)
        dec_octet)), Cat (Ch 32 32) (Cat port ha_end)], [DIGIT, Cat (Ch 46 46) (Cat dec_octet (Cat
        (Ch 46 46) dec_octet)), Cat (Ch 32 32) (Cat port ha_end)]], [], [[Cat (Ch 46 46) (Cat
        dec_octet (Cat (Ch 46 46) dec_octet)), Ch 32 32], [DIGIT, Cat (Ch 46 46) (Cat dec_octet
        (Cat (Ch 46 46) dec_octet)), Ch 32 32]]]]))"

definition ha_expects_9 :: certificate where
  "ha_expects_9 s =
     (if s = 65 then ([-128, 46, 47, 48, 53, 54, 58], [[[], [], [[Cat (Ch 46 46) (Cat dec_octet
        (Cat (Ch 46 46) dec_octet)), Cat (Ch 32 32) port], [DIGIT, Cat (Ch 46 46) (Cat dec_octet
        (Cat (Ch 46 46) dec_octet)), Cat (Ch 32 32) port], [Cat (Ch 48 52) DIGIT, Cat (Ch 46 46)
        (Cat dec_octet (Cat (Ch 46 46) dec_octet)), Cat (Ch 32 32) port], [Cat (Ch 53 53) (Ch 48
        53), Cat (Ch 46 46) (Cat dec_octet (Cat (Ch 46 46) dec_octet)), Cat (Ch 32 32) port]],
        [[Cat (Ch 46 46) (Cat dec_octet (Cat (Ch 46 46) dec_octet)), Cat (Ch 32 32) (Cat port
        ha_end)], [DIGIT, Cat (Ch 46 46) (Cat dec_octet (Cat (Ch 46 46) dec_octet)), Cat (Ch 32
        32) (Cat port ha_end)], [Cat (Ch 48 52) DIGIT, Cat (Ch 46 46) (Cat dec_octet (Cat (Ch 46
        46) dec_octet)), Cat (Ch 32 32) (Cat port ha_end)], [Cat (Ch 53 53) (Ch 48 53), Cat (Ch 46
        46) (Cat dec_octet (Cat (Ch 46 46) dec_octet)), Cat (Ch 32 32) (Cat port ha_end)]], [],
        [[Cat (Ch 46 46) (Cat dec_octet (Cat (Ch 46 46) dec_octet)), Ch 32 32], [DIGIT, Cat (Ch 46
        46) (Cat dec_octet (Cat (Ch 46 46) dec_octet)), Ch 32 32], [Cat (Ch 48 52) DIGIT, Cat (Ch
        46 46) (Cat dec_octet (Cat (Ch 46 46) dec_octet)), Ch 32 32], [Cat (Ch 53 53) (Ch 48 53),
        Cat (Ch 46 46) (Cat dec_octet (Cat (Ch 46 46) dec_octet)), Ch 32 32]]]])
      else
      if s = 66 then ([-128, 46, 47, 48, 54], [[[], [], [[Cat (Ch 46 46) (Cat dec_octet (Cat (Ch
        46 46) dec_octet)), Cat (Ch 32 32) port], [Ch 48 53, Cat (Ch 46 46) (Cat dec_octet (Cat
        (Ch 46 46) dec_octet)), Cat (Ch 32 32) port]], [[Cat (Ch 46 46) (Cat dec_octet (Cat (Ch 46
        46) dec_octet)), Cat (Ch 32 32) (Cat port ha_end)], [Ch 48 53, Cat (Ch 46 46) (Cat
        dec_octet (Cat (Ch 46 46) dec_octet)), Cat (Ch 32 32) (Cat port ha_end)]], [], [[Cat (Ch
        46 46) (Cat dec_octet (Cat (Ch 46 46) dec_octet)), Ch 32 32], [Ch 48 53, Cat (Ch 46 46)
        (Cat dec_octet (Cat (Ch 46 46) dec_octet)), Ch 32 32]]]])
      else
      if s = 67 then ([-128, 48, 58, 59, 65, 71, 97, 103], [[[], [], [[Rep 0 2 HEXDIG, Ch 58 58,
        Rep 5 5 h16_colon, ls32, Cat (Ch 32 32) port], [Rep 0 2 HEXDIG, Cat dcolon (Cat (Rep 4 4
        h16_colon) ls32), Cat (Ch 32 32) port], [Rep 0 2 HEXDIG, Cat dcolon (Cat (Rep 3 3
        h16_colon) ls32), Cat (Ch 32 32) port], [Rep 0 2 HEXDIG, Ch 58 58, h16, Cat dcolon (Cat
        (Rep 3 3 h16_colon) ls32), Cat (Ch 32 32) port], [Rep 0 2 HEXDIG, Cat dcolon (Cat (Rep 2 2
        h16_colon) ls32), Cat (Ch 32 32) port], [Rep 0 2 HEXDIG, Ch 58 58, Rep 0 1 h16_colon, h16,
        Cat dcolon (Cat (Rep 2 2 h16_colon) ls32), Cat (Ch 32 32) port], [Rep 0 2 HEXDIG, Cat
        dcolon (Cat h16_colon ls32), Cat (Ch 32 32) port], [Rep 0 2 HEXDIG, Ch 58 58, Rep 0 2
        h16_colon, h16, Cat dcolon (Cat h16_colon ls32), Cat (Ch 32 32) port], [Rep 0 2 HEXDIG,
        Cat dcolon ls32, Cat (Ch 32 32) port], [Rep 0 2 HEXDIG, Ch 58 58, Rep 0 3 h16_colon, h16,
        Cat dcolon ls32, Cat (Ch 32 32) port], [Rep 0 2 HEXDIG, Cat dcolon h16, Cat (Ch 32 32)
        port], [Rep 0 2 HEXDIG, Ch 58 58, Rep 0 4 h16_colon, h16, Cat dcolon h16, Cat (Ch 32 32)
        port], [Rep 0 2 HEXDIG, dcolon, Cat (Ch 32 32) port], [Rep 0 2 HEXDIG, Ch 58 58, Rep 0 5
        h16_colon, h16, dcolon, Cat (Ch 32 32) port]], [[Rep 0 2 HEXDIG, Ch 58 58, Rep 5 5
        h16_colon, ls32, Cat (Ch 32 32) (Cat port ha_end)], [Rep 0 2 HEXDIG, Cat dcolon (Cat (Rep
        4 4 h16_colon) ls32), Cat (Ch 32 32) (Cat port ha_end)], [Rep 0 2 HEXDIG, Cat dcolon (Cat
        (Rep 3 3 h16_colon) ls32), Cat (Ch 32 32) (Cat port ha_end)], [Rep 0 2 HEXDIG, Ch 58 58,
        h16, Cat dcolon (Cat (Rep 3 3 h16_colon) ls32), Cat (Ch 32 32) (Cat port ha_end)], [Rep 0
        2 HEXDIG, Cat dcolon (Cat (Rep 2 2 h16_colon) ls32), Cat (Ch 32 32) (Cat port ha_end)],
        [Rep 0 2 HEXDIG, Ch 58 58, Rep 0 1 h16_colon, h16, Cat dcolon (Cat (Rep 2 2 h16_colon)
        ls32), Cat (Ch 32 32) (Cat port ha_end)], [Rep 0 2 HEXDIG, Cat dcolon (Cat h16_colon
        ls32), Cat (Ch 32 32) (Cat port ha_end)], [Rep 0 2 HEXDIG, Ch 58 58, Rep 0 2 h16_colon,
        h16, Cat dcolon (Cat h16_colon ls32), Cat (Ch 32 32) (Cat port ha_end)], [Rep 0 2 HEXDIG,
        Cat dcolon ls32, Cat (Ch 32 32) (Cat port ha_end)], [Rep 0 2 HEXDIG, Ch 58 58, Rep 0 3
        h16_colon, h16, Cat dcolon ls32, Cat (Ch 32 32) (Cat port ha_end)], [Rep 0 2 HEXDIG, Cat
        dcolon h16, Cat (Ch 32 32) (Cat port ha_end)], [Rep 0 2 HEXDIG, Ch 58 58, Rep 0 4
        h16_colon, h16, Cat dcolon h16, Cat (Ch 32 32) (Cat port ha_end)], [Rep 0 2 HEXDIG,
        dcolon, Cat (Ch 32 32) (Cat port ha_end)], [Rep 0 2 HEXDIG, Ch 58 58, Rep 0 5 h16_colon,
        h16, dcolon, Cat (Ch 32 32) (Cat port ha_end)]], [], [[Rep 0 2 HEXDIG, Ch 58 58, Rep 5 5
        h16_colon, ls32, Ch 32 32], [Rep 0 2 HEXDIG, Cat dcolon (Cat (Rep 4 4 h16_colon) ls32), Ch
        32 32], [Rep 0 2 HEXDIG, Cat dcolon (Cat (Rep 3 3 h16_colon) ls32), Ch 32 32], [Rep 0 2
        HEXDIG, Ch 58 58, h16, Cat dcolon (Cat (Rep 3 3 h16_colon) ls32), Ch 32 32], [Rep 0 2
        HEXDIG, Cat dcolon (Cat (Rep 2 2 h16_colon) ls32), Ch 32 32], [Rep 0 2 HEXDIG, Ch 58 58,
        Rep 0 1 h16_colon, h16, Cat dcolon (Cat (Rep 2 2 h16_colon) ls32), Ch 32 32], [Rep 0 2
        HEXDIG, Cat dcolon (Cat h16_colon ls32), Ch 32 32], [Rep 0 2 HEXDIG, Ch 58 58, Rep 0 2
        h16_colon, h16, Cat dcolon (Cat h16_colon ls32), Ch 32 32], [Rep 0 2 HEXDIG, Cat dcolon
        ls32, Ch 32 32], [Rep 0 2 HEXDIG, Ch 58 58, Rep 0 3 h16_colon, h16, Cat dcolon ls32, Ch 32
        32], [Rep 0 2 HEXDIG, Cat dcolon h16, Ch 32 32], [Rep 0 2 HEXDIG, Ch 58 58, Rep 0 4
        h16_colon, h16, Cat dcolon h16, Ch 32 32], [Rep 0 2 HEXDIG, dcolon, Ch 32 32], [Rep 0 2
        HEXDIG, Ch 58 58, Rep 0 5 h16_colon, h16, dcolon, Ch 32 32]]]])
      else
      if s = 68 then ([-128, 48, 58, 59, 65, 71, 97, 103], [[[], [], [[Rep 0 1 HEXDIG, Ch 58 58,
        Rep 5 5 h16_colon, ls32, Cat (Ch 32 32) port], [Rep 0 1 HEXDIG, Cat dcolon (Cat (Rep 4 4
        h16_colon) ls32), Cat (Ch 32 32) port], [Rep 0 1 HEXDIG, Cat dcolon (Cat (Rep 3 3
        h16_colon) ls32), Cat (Ch 32 32) port], [Rep 0 1 HEXDIG, Ch 58 58, h16, Cat dcolon (Cat
        (Rep 3 3 h16_colon) ls32), Cat (Ch 32 32) port], [Rep 0 1 HEXDIG, Cat dcolon (Cat (Rep 2 2
        h16_colon) ls32), Cat (Ch 32 32) port], [Rep 0 1 HEXDIG, Ch 58 58, Rep 0 1 h16_colon, h16,
        Cat dcolon (Cat (Rep 2 2 h16_colon) ls32), Cat (Ch 32 32) port], [Rep 0 1 HEXDIG, Cat
        dcolon (Cat h16_colon ls32), Cat (Ch 32 32) port], [Rep 0 1 HEXDIG, Ch 58 58, Rep 0 2
        h16_colon, h16, Cat dcolon (Cat h16_colon ls32), Cat (Ch 32 32) port], [Rep 0 1 HEXDIG,
        Cat dcolon ls32, Cat (Ch 32 32) port], [Rep 0 1 HEXDIG, Ch 58 58, Rep 0 3 h16_colon, h16,
        Cat dcolon ls32, Cat (Ch 32 32) port], [Rep 0 1 HEXDIG, Cat dcolon h16, Cat (Ch 32 32)
        port], [Rep 0 1 HEXDIG, Ch 58 58, Rep 0 4 h16_colon, h16, Cat dcolon h16, Cat (Ch 32 32)
        port], [Rep 0 1 HEXDIG, dcolon, Cat (Ch 32 32) port], [Rep 0 1 HEXDIG, Ch 58 58, Rep 0 5
        h16_colon, h16, dcolon, Cat (Ch 32 32) port]], [[Rep 0 1 HEXDIG, Ch 58 58, Rep 5 5
        h16_colon, ls32, Cat (Ch 32 32) (Cat port ha_end)], [Rep 0 1 HEXDIG, Cat dcolon (Cat (Rep
        4 4 h16_colon) ls32), Cat (Ch 32 32) (Cat port ha_end)], [Rep 0 1 HEXDIG, Cat dcolon (Cat
        (Rep 3 3 h16_colon) ls32), Cat (Ch 32 32) (Cat port ha_end)], [Rep 0 1 HEXDIG, Ch 58 58,
        h16, Cat dcolon (Cat (Rep 3 3 h16_colon) ls32), Cat (Ch 32 32) (Cat port ha_end)], [Rep 0
        1 HEXDIG, Cat dcolon (Cat (Rep 2 2 h16_colon) ls32), Cat (Ch 32 32) (Cat port ha_end)],
        [Rep 0 1 HEXDIG, Ch 58 58, Rep 0 1 h16_colon, h16, Cat dcolon (Cat (Rep 2 2 h16_colon)
        ls32), Cat (Ch 32 32) (Cat port ha_end)], [Rep 0 1 HEXDIG, Cat dcolon (Cat h16_colon
        ls32), Cat (Ch 32 32) (Cat port ha_end)], [Rep 0 1 HEXDIG, Ch 58 58, Rep 0 2 h16_colon,
        h16, Cat dcolon (Cat h16_colon ls32), Cat (Ch 32 32) (Cat port ha_end)], [Rep 0 1 HEXDIG,
        Cat dcolon ls32, Cat (Ch 32 32) (Cat port ha_end)], [Rep 0 1 HEXDIG, Ch 58 58, Rep 0 3
        h16_colon, h16, Cat dcolon ls32, Cat (Ch 32 32) (Cat port ha_end)], [Rep 0 1 HEXDIG, Cat
        dcolon h16, Cat (Ch 32 32) (Cat port ha_end)], [Rep 0 1 HEXDIG, Ch 58 58, Rep 0 4
        h16_colon, h16, Cat dcolon h16, Cat (Ch 32 32) (Cat port ha_end)], [Rep 0 1 HEXDIG,
        dcolon, Cat (Ch 32 32) (Cat port ha_end)], [Rep 0 1 HEXDIG, Ch 58 58, Rep 0 5 h16_colon,
        h16, dcolon, Cat (Ch 32 32) (Cat port ha_end)]], [], [[Rep 0 1 HEXDIG, Ch 58 58, Rep 5 5
        h16_colon, ls32, Ch 32 32], [Rep 0 1 HEXDIG, Cat dcolon (Cat (Rep 4 4 h16_colon) ls32), Ch
        32 32], [Rep 0 1 HEXDIG, Cat dcolon (Cat (Rep 3 3 h16_colon) ls32), Ch 32 32], [Rep 0 1
        HEXDIG, Ch 58 58, h16, Cat dcolon (Cat (Rep 3 3 h16_colon) ls32), Ch 32 32], [Rep 0 1
        HEXDIG, Cat dcolon (Cat (Rep 2 2 h16_colon) ls32), Ch 32 32], [Rep 0 1 HEXDIG, Ch 58 58,
        Rep 0 1 h16_colon, h16, Cat dcolon (Cat (Rep 2 2 h16_colon) ls32), Ch 32 32], [Rep 0 1
        HEXDIG, Cat dcolon (Cat h16_colon ls32), Ch 32 32], [Rep 0 1 HEXDIG, Ch 58 58, Rep 0 2
        h16_colon, h16, Cat dcolon (Cat h16_colon ls32), Ch 32 32], [Rep 0 1 HEXDIG, Cat dcolon
        ls32, Ch 32 32], [Rep 0 1 HEXDIG, Ch 58 58, Rep 0 3 h16_colon, h16, Cat dcolon ls32, Ch 32
        32], [Rep 0 1 HEXDIG, Cat dcolon h16, Ch 32 32], [Rep 0 1 HEXDIG, Ch 58 58, Rep 0 4
        h16_colon, h16, Cat dcolon h16, Ch 32 32], [Rep 0 1 HEXDIG, dcolon, Ch 32 32], [Rep 0 1
        HEXDIG, Ch 58 58, Rep 0 5 h16_colon, h16, dcolon, Ch 32 32]]]])
      else
      if s = 69 then ([-128, 58, 59], [[[], [], [[Ch 58 58, Rep 5 5 h16_colon, ls32, Cat (Ch 32
        32) port], [Cat dcolon (Cat (Rep 4 4 h16_colon) ls32), Cat (Ch 32 32) port], [Cat dcolon
        (Cat (Rep 3 3 h16_colon) ls32), Cat (Ch 32 32) port], [Ch 58 58, h16, Cat dcolon (Cat (Rep
        3 3 h16_colon) ls32), Cat (Ch 32 32) port], [Cat dcolon (Cat (Rep 2 2 h16_colon) ls32),
        Cat (Ch 32 32) port], [Ch 58 58, Rep 0 1 h16_colon, h16, Cat dcolon (Cat (Rep 2 2
        h16_colon) ls32), Cat (Ch 32 32) port], [Cat dcolon (Cat h16_colon ls32), Cat (Ch 32 32)
        port], [Ch 58 58, Rep 0 2 h16_colon, h16, Cat dcolon (Cat h16_colon ls32), Cat (Ch 32 32)
        port], [Cat dcolon ls32, Cat (Ch 32 32) port], [Ch 58 58, Rep 0 3 h16_colon, h16, Cat
        dcolon ls32, Cat (Ch 32 32) port], [Cat dcolon h16, Cat (Ch 32 32) port], [Ch 58 58, Rep 0
        4 h16_colon, h16, Cat dcolon h16, Cat (Ch 32 32) port], [dcolon, Cat (Ch 32 32) port], [Ch
        58 58, Rep 0 5 h16_colon, h16, dcolon, Cat (Ch 32 32) port]], [[Ch 58 58, Rep 5 5
        h16_colon, ls32, Cat (Ch 32 32) (Cat port ha_end)], [Cat dcolon (Cat (Rep 4 4 h16_colon)
        ls32), Cat (Ch 32 32) (Cat port ha_end)], [Cat dcolon (Cat (Rep 3 3 h16_colon) ls32), Cat
        (Ch 32 32) (Cat port ha_end)], [Ch 58 58, h16, Cat dcolon (Cat (Rep 3 3 h16_colon) ls32),
        Cat (Ch 32 32) (Cat port ha_end)], [Cat dcolon (Cat (Rep 2 2 h16_colon) ls32), Cat (Ch 32
        32) (Cat port ha_end)], [Ch 58 58, Rep 0 1 h16_colon, h16, Cat dcolon (Cat (Rep 2 2
        h16_colon) ls32), Cat (Ch 32 32) (Cat port ha_end)], [Cat dcolon (Cat h16_colon ls32), Cat
        (Ch 32 32) (Cat port ha_end)], [Ch 58 58, Rep 0 2 h16_colon, h16, Cat dcolon (Cat
        h16_colon ls32), Cat (Ch 32 32) (Cat port ha_end)], [Cat dcolon ls32, Cat (Ch 32 32) (Cat
        port ha_end)], [Ch 58 58, Rep 0 3 h16_colon, h16, Cat dcolon ls32, Cat (Ch 32 32) (Cat
        port ha_end)], [Cat dcolon h16, Cat (Ch 32 32) (Cat port ha_end)], [Ch 58 58, Rep 0 4
        h16_colon, h16, Cat dcolon h16, Cat (Ch 32 32) (Cat port ha_end)], [dcolon, Cat (Ch 32 32)
        (Cat port ha_end)], [Ch 58 58, Rep 0 5 h16_colon, h16, dcolon, Cat (Ch 32 32) (Cat port
        ha_end)]], [], [[Ch 58 58, Rep 5 5 h16_colon, ls32, Ch 32 32], [Cat dcolon (Cat (Rep 4 4
        h16_colon) ls32), Ch 32 32], [Cat dcolon (Cat (Rep 3 3 h16_colon) ls32), Ch 32 32], [Ch 58
        58, h16, Cat dcolon (Cat (Rep 3 3 h16_colon) ls32), Ch 32 32], [Cat dcolon (Cat (Rep 2 2
        h16_colon) ls32), Ch 32 32], [Ch 58 58, Rep 0 1 h16_colon, h16, Cat dcolon (Cat (Rep 2 2
        h16_colon) ls32), Ch 32 32], [Cat dcolon (Cat h16_colon ls32), Ch 32 32], [Ch 58 58, Rep 0
        2 h16_colon, h16, Cat dcolon (Cat h16_colon ls32), Ch 32 32], [Cat dcolon ls32, Ch 32 32],
        [Ch 58 58, Rep 0 3 h16_colon, h16, Cat dcolon ls32, Ch 32 32], [Cat dcolon h16, Ch 32 32],
        [Ch 58 58, Rep 0 4 h16_colon, h16, Cat dcolon h16, Ch 32 32], [dcolon, Ch 32 32], [Ch 58
        58, Rep 0 5 h16_colon, h16, dcolon, Ch 32 32]]]])
      else
      if s = 70 then ([-128, 48, 58, 59, 65, 71, 97, 103], [[[], [], [[Rep 5 5 h16_colon, ls32,
        Cat (Ch 32 32) port], [Ch 58 58, Cat (Rep 4 4 h16_colon) ls32, Cat (Ch 32 32) port], [Ch
        58 58, Cat (Rep 3 3 h16_colon) ls32, Cat (Ch 32 32) port], [h16, Cat dcolon (Cat (Rep 3 3
        h16_colon) ls32), Cat (Ch 32 32) port], [Ch 58 58, Cat (Rep 2 2 h16_colon) ls32, Cat (Ch
        32 32) port], [Rep 0 1 h16_colon, h16, Cat dcolon (Cat (Rep 2 2 h16_colon) ls32), Cat (Ch
        32 32) port], [Ch 58 58, Cat h16_colon ls32, Cat (Ch 32 32) port], [Rep 0 2 h16_colon,
        h16, Cat dcolon (Cat h16_colon ls32), Cat (Ch 32 32) port], [Ch 58 58, ls32, Cat (Ch 32
        32) port], [Rep 0 3 h16_colon, h16, Cat dcolon ls32, Cat (Ch 32 32) port], [Ch 58 58, h16,
        Cat (Ch 32 32) port], [Rep 0 4 h16_colon, h16, Cat dcolon h16, Cat (Ch 32 32) port], [Ch
        58 58, Cat (Ch 32 32) port], [Rep 0 5 h16_colon, h16, dcolon, Cat (Ch 32 32) port]], [[Rep
        5 5 h16_colon, ls32, Cat (Ch 32 32) (Cat port ha_end)], [Ch 58 58, Cat (Rep 4 4 h16_colon)
        ls32, Cat (Ch 32 32) (Cat port ha_end)], [Ch 58 58, Cat (Rep 3 3 h16_colon) ls32, Cat (Ch
        32 32) (Cat port ha_end)], [h16, Cat dcolon (Cat (Rep 3 3 h16_colon) ls32), Cat (Ch 32 32)
        (Cat port ha_end)], [Ch 58 58, Cat (Rep 2 2 h16_colon) ls32, Cat (Ch 32 32) (Cat port
        ha_end)], [Rep 0 1 h16_colon, h16, Cat dcolon (Cat (Rep 2 2 h16_colon) ls32), Cat (Ch 32
        32) (Cat port ha_end)], [Ch 58 58, Cat h16_colon ls32, Cat (Ch 32 32) (Cat port ha_end)],
        [Rep 0 2 h16_colon, h16, Cat dcolon (Cat h16_colon ls32), Cat (Ch 32 32) (Cat port
        ha_end)], [Ch 58 58, ls32, Cat (Ch 32 32) (Cat port ha_end)], [Rep 0 3 h16_colon, h16, Cat
        dcolon ls32, Cat (Ch 32 32) (Cat port ha_end)], [Ch 58 58, h16, Cat (Ch 32 32) (Cat port
        ha_end)], [Rep 0 4 h16_colon, h16, Cat dcolon h16, Cat (Ch 32 32) (Cat port ha_end)], [Ch
        58 58, Cat (Ch 32 32) (Cat port ha_end)], [Rep 0 5 h16_colon, h16, dcolon, Cat (Ch 32 32)
        (Cat port ha_end)]], [], [[Rep 5 5 h16_colon, ls32, Ch 32 32], [Ch 58 58, Cat (Rep 4 4
        h16_colon) ls32, Ch 32 32], [Ch 58 58, Cat (Rep 3 3 h16_colon) ls32, Ch 32 32], [h16, Cat
        dcolon (Cat (Rep 3 3 h16_colon) ls32), Ch 32 32], [Ch 58 58, Cat (Rep 2 2 h16_colon) ls32,
        Ch 32 32], [Rep 0 1 h16_colon, h16, Cat dcolon (Cat (Rep 2 2 h16_colon) ls32), Ch 32 32],
        [Ch 58 58, Cat h16_colon ls32, Ch 32 32], [Rep 0 2 h16_colon, h16, Cat dcolon (Cat
        h16_colon ls32), Ch 32 32], [Ch 58 58, ls32, Ch 32 32], [Rep 0 3 h16_colon, h16, Cat
        dcolon ls32, Ch 32 32], [Ch 58 58, h16, Ch 32 32], [Rep 0 4 h16_colon, h16, Cat dcolon
        h16, Ch 32 32], [Ch 58 58, Ch 32 32], [Rep 0 5 h16_colon, h16, dcolon, Ch 32 32]]]])
      else
      if s = 71 then ([-128, 48, 58, 59, 65, 71, 97, 103], [[[], [], [[Rep 0 3 HEXDIG, Ch 58 58,
        Rep 4 4 h16_colon, ls32, Cat (Ch 32 32) port], [Rep 0 3 HEXDIG, Cat dcolon (Cat (Rep 3 3
        h16_colon) ls32), Cat (Ch 32 32) port], [Rep 0 3 HEXDIG, Cat dcolon (Cat (Rep 2 2
        h16_colon) ls32), Cat (Ch 32 32) port], [Rep 0 3 HEXDIG, Ch 58 58, h16, Cat dcolon (Cat
        (Rep 2 2 h16_colon) ls32), Cat (Ch 32 32) port], [Rep 0 3 HEXDIG, Cat dcolon (Cat
        h16_colon ls32), Cat (Ch 32 32) port], [Rep 0 3 HEXDIG, Ch 58 58, Rep 0 1 h16_colon, h16,
        Cat dcolon (Cat h16_colon ls32), Cat (Ch 32 32) port], [Rep 0 3 HEXDIG, Cat dcolon ls32,
        Cat (Ch 32 32) port], [Rep 0 3 HEXDIG, Ch 58 58, Rep 0 2 h16_colon, h16, Cat dcolon ls32,
        Cat (Ch 32 32) port], [Rep 0 3 HEXDIG, Cat dcolon h16, Cat (Ch 32 32) port], [Rep 0 3
        HEXDIG, Ch 58 58, Rep 0 3 h16_colon, h16, Cat dcolon h16, Cat (Ch 32 32) port], [Rep 0 3
        HEXDIG, dcolon, Cat (Ch 32 32) port], [Rep 0 3 HEXDIG, Ch 58 58, Rep 0 4 h16_colon, h16,
        dcolon, Cat (Ch 32 32) port]], [[Rep 0 3 HEXDIG, Ch 58 58, Rep 4 4 h16_colon, ls32, Cat
        (Ch 32 32) (Cat port ha_end)], [Rep 0 3 HEXDIG, Cat dcolon (Cat (Rep 3 3 h16_colon) ls32),
        Cat (Ch 32 32) (Cat port ha_end)], [Rep 0 3 HEXDIG, Cat dcolon (Cat (Rep 2 2 h16_colon)
        ls32), Cat (Ch 32 32) (Cat port ha_end)], [Rep 0 3 HEXDIG, Ch 58 58, h16, Cat dcolon (Cat
        (Rep 2 2 h16_colon) ls32), Cat (Ch 32 32) (Cat port ha_end)], [Rep 0 3 HEXDIG, Cat dcolon
        (Cat h16_colon ls32), Cat (Ch 32 32) (Cat port ha_end)], [Rep 0 3 HEXDIG, Ch 58 58, Rep 0
        1 h16_colon, h16, Cat dcolon (Cat h16_colon ls32), Cat (Ch 32 32) (Cat port ha_end)], [Rep
        0 3 HEXDIG, Cat dcolon ls32, Cat (Ch 32 32) (Cat port ha_end)], [Rep 0 3 HEXDIG, Ch 58 58,
        Rep 0 2 h16_colon, h16, Cat dcolon ls32, Cat (Ch 32 32) (Cat port ha_end)], [Rep 0 3
        HEXDIG, Cat dcolon h16, Cat (Ch 32 32) (Cat port ha_end)], [Rep 0 3 HEXDIG, Ch 58 58, Rep
        0 3 h16_colon, h16, Cat dcolon h16, Cat (Ch 32 32) (Cat port ha_end)], [Rep 0 3 HEXDIG,
        dcolon, Cat (Ch 32 32) (Cat port ha_end)], [Rep 0 3 HEXDIG, Ch 58 58, Rep 0 4 h16_colon,
        h16, dcolon, Cat (Ch 32 32) (Cat port ha_end)]], [], [[Rep 0 3 HEXDIG, Ch 58 58, Rep 4 4
        h16_colon, ls32, Ch 32 32], [Rep 0 3 HEXDIG, Cat dcolon (Cat (Rep 3 3 h16_colon) ls32), Ch
        32 32], [Rep 0 3 HEXDIG, Cat dcolon (Cat (Rep 2 2 h16_colon) ls32), Ch 32 32], [Rep 0 3
        HEXDIG, Ch 58 58, h16, Cat dcolon (Cat (Rep 2 2 h16_colon) ls32), Ch 32 32], [Rep 0 3
        HEXDIG, Cat dcolon (Cat h16_colon ls32), Ch 32 32], [Rep 0 3 HEXDIG, Ch 58 58, Rep 0 1
        h16_colon, h16, Cat dcolon (Cat h16_colon ls32), Ch 32 32], [Rep 0 3 HEXDIG, Cat dcolon
        ls32, Ch 32 32], [Rep 0 3 HEXDIG, Ch 58 58, Rep 0 2 h16_colon, h16, Cat dcolon ls32, Ch 32
        32], [Rep 0 3 HEXDIG, Cat dcolon h16, Ch 32 32], [Rep 0 3 HEXDIG, Ch 58 58, Rep 0 3
        h16_colon, h16, Cat dcolon h16, Ch 32 32], [Rep 0 3 HEXDIG, dcolon, Ch 32 32], [Rep 0 3
        HEXDIG, Ch 58 58, Rep 0 4 h16_colon, h16, dcolon, Ch 32 32]]]])
      else
      ([-128, 48, 58, 59, 65, 71, 97, 103], [[[], [], [[Rep 0 2 HEXDIG, Ch 58 58, Rep 4 4
        h16_colon, ls32, Cat (Ch 32 32) port], [Rep 0 2 HEXDIG, Cat dcolon (Cat (Rep 3 3
        h16_colon) ls32), Cat (Ch 32 32) port], [Rep 0 2 HEXDIG, Cat dcolon (Cat (Rep 2 2
        h16_colon) ls32), Cat (Ch 32 32) port], [Rep 0 2 HEXDIG, Ch 58 58, h16, Cat dcolon (Cat
        (Rep 2 2 h16_colon) ls32), Cat (Ch 32 32) port], [Rep 0 2 HEXDIG, Cat dcolon (Cat
        h16_colon ls32), Cat (Ch 32 32) port], [Rep 0 2 HEXDIG, Ch 58 58, Rep 0 1 h16_colon, h16,
        Cat dcolon (Cat h16_colon ls32), Cat (Ch 32 32) port], [Rep 0 2 HEXDIG, Cat dcolon ls32,
        Cat (Ch 32 32) port], [Rep 0 2 HEXDIG, Ch 58 58, Rep 0 2 h16_colon, h16, Cat dcolon ls32,
        Cat (Ch 32 32) port], [Rep 0 2 HEXDIG, Cat dcolon h16, Cat (Ch 32 32) port], [Rep 0 2
        HEXDIG, Ch 58 58, Rep 0 3 h16_colon, h16, Cat dcolon h16, Cat (Ch 32 32) port], [Rep 0 2
        HEXDIG, dcolon, Cat (Ch 32 32) port], [Rep 0 2 HEXDIG, Ch 58 58, Rep 0 4 h16_colon, h16,
        dcolon, Cat (Ch 32 32) port]], [[Rep 0 2 HEXDIG, Ch 58 58, Rep 4 4 h16_colon, ls32, Cat
        (Ch 32 32) (Cat port ha_end)], [Rep 0 2 HEXDIG, Cat dcolon (Cat (Rep 3 3 h16_colon) ls32),
        Cat (Ch 32 32) (Cat port ha_end)], [Rep 0 2 HEXDIG, Cat dcolon (Cat (Rep 2 2 h16_colon)
        ls32), Cat (Ch 32 32) (Cat port ha_end)], [Rep 0 2 HEXDIG, Ch 58 58, h16, Cat dcolon (Cat
        (Rep 2 2 h16_colon) ls32), Cat (Ch 32 32) (Cat port ha_end)], [Rep 0 2 HEXDIG, Cat dcolon
        (Cat h16_colon ls32), Cat (Ch 32 32) (Cat port ha_end)], [Rep 0 2 HEXDIG, Ch 58 58, Rep 0
        1 h16_colon, h16, Cat dcolon (Cat h16_colon ls32), Cat (Ch 32 32) (Cat port ha_end)], [Rep
        0 2 HEXDIG, Cat dcolon ls32, Cat (Ch 32 32) (Cat port ha_end)], [Rep 0 2 HEXDIG, Ch 58 58,
        Rep 0 2 h16_colon, h16, Cat dcolon ls32, Cat (Ch 32 32) (Cat port ha_end)], [Rep 0 2
        HEXDIG, Cat dcolon h16, Cat (Ch 32 32) (Cat port ha_end)], [Rep 0 2 HEXDIG, Ch 58 58, Rep
        0 3 h16_colon, h16, Cat dcolon h16, Cat (Ch 32 32) (Cat port ha_end)], [Rep 0 2 HEXDIG,
        dcolon, Cat (Ch 32 32) (Cat port ha_end)], [Rep 0 2 HEXDIG, Ch 58 58, Rep 0 4 h16_colon,
        h16, dcolon, Cat (Ch 32 32) (Cat port ha_end)]], [], [[Rep 0 2 HEXDIG, Ch 58 58, Rep 4 4
        h16_colon, ls32, Ch 32 32], [Rep 0 2 HEXDIG, Cat dcolon (Cat (Rep 3 3 h16_colon) ls32), Ch
        32 32], [Rep 0 2 HEXDIG, Cat dcolon (Cat (Rep 2 2 h16_colon) ls32), Ch 32 32], [Rep 0 2
        HEXDIG, Ch 58 58, h16, Cat dcolon (Cat (Rep 2 2 h16_colon) ls32), Ch 32 32], [Rep 0 2
        HEXDIG, Cat dcolon (Cat h16_colon ls32), Ch 32 32], [Rep 0 2 HEXDIG, Ch 58 58, Rep 0 1
        h16_colon, h16, Cat dcolon (Cat h16_colon ls32), Ch 32 32], [Rep 0 2 HEXDIG, Cat dcolon
        ls32, Ch 32 32], [Rep 0 2 HEXDIG, Ch 58 58, Rep 0 2 h16_colon, h16, Cat dcolon ls32, Ch 32
        32], [Rep 0 2 HEXDIG, Cat dcolon h16, Ch 32 32], [Rep 0 2 HEXDIG, Ch 58 58, Rep 0 3
        h16_colon, h16, Cat dcolon h16, Ch 32 32], [Rep 0 2 HEXDIG, dcolon, Ch 32 32], [Rep 0 2
        HEXDIG, Ch 58 58, Rep 0 4 h16_colon, h16, dcolon, Ch 32 32]]]]))"

definition ha_expects_10 :: certificate where
  "ha_expects_10 s =
     (if s = 73 then ([-128, 48, 58, 59, 65, 71, 97, 103], [[[], [], [[Rep 0 1 HEXDIG, Ch 58 58,
        Rep 4 4 h16_colon, ls32, Cat (Ch 32 32) port], [Rep 0 1 HEXDIG, Cat dcolon (Cat (Rep 3 3
        h16_colon) ls32), Cat (Ch 32 32) port], [Rep 0 1 HEXDIG, Cat dcolon (Cat (Rep 2 2
        h16_colon) ls32), Cat (Ch 32 32) port], [Rep 0 1 HEXDIG, Ch 58 58, h16, Cat dcolon (Cat
        (Rep 2 2 h16_colon) ls32), Cat (Ch 32 32) port], [Rep 0 1 HEXDIG, Cat dcolon (Cat
        h16_colon ls32), Cat (Ch 32 32) port], [Rep 0 1 HEXDIG, Ch 58 58, Rep 0 1 h16_colon, h16,
        Cat dcolon (Cat h16_colon ls32), Cat (Ch 32 32) port], [Rep 0 1 HEXDIG, Cat dcolon ls32,
        Cat (Ch 32 32) port], [Rep 0 1 HEXDIG, Ch 58 58, Rep 0 2 h16_colon, h16, Cat dcolon ls32,
        Cat (Ch 32 32) port], [Rep 0 1 HEXDIG, Cat dcolon h16, Cat (Ch 32 32) port], [Rep 0 1
        HEXDIG, Ch 58 58, Rep 0 3 h16_colon, h16, Cat dcolon h16, Cat (Ch 32 32) port], [Rep 0 1
        HEXDIG, dcolon, Cat (Ch 32 32) port], [Rep 0 1 HEXDIG, Ch 58 58, Rep 0 4 h16_colon, h16,
        dcolon, Cat (Ch 32 32) port]], [[Rep 0 1 HEXDIG, Ch 58 58, Rep 4 4 h16_colon, ls32, Cat
        (Ch 32 32) (Cat port ha_end)], [Rep 0 1 HEXDIG, Cat dcolon (Cat (Rep 3 3 h16_colon) ls32),
        Cat (Ch 32 32) (Cat port ha_end)], [Rep 0 1 HEXDIG, Cat dcolon (Cat (Rep 2 2 h16_colon)
        ls32), Cat (Ch 32 32) (Cat port ha_end)], [Rep 0 1 HEXDIG, Ch 58 58, h16, Cat dcolon (Cat
        (Rep 2 2 h16_colon) ls32), Cat (Ch 32 32) (Cat port ha_end)], [Rep 0 1 HEXDIG, Cat dcolon
        (Cat h16_colon ls32), Cat (Ch 32 32) (Cat port ha_end)], [Rep 0 1 HEXDIG, Ch 58 58, Rep 0
        1 h16_colon, h16, Cat dcolon (Cat h16_colon ls32), Cat (Ch 32 32) (Cat port ha_end)], [Rep
        0 1 HEXDIG, Cat dcolon ls32, Cat (Ch 32 32) (Cat port ha_end)], [Rep 0 1 HEXDIG, Ch 58 58,
        Rep 0 2 h16_colon, h16, Cat dcolon ls32, Cat (Ch 32 32) (Cat port ha_end)], [Rep 0 1
        HEXDIG, Cat dcolon h16, Cat (Ch 32 32) (Cat port ha_end)], [Rep 0 1 HEXDIG, Ch 58 58, Rep
        0 3 h16_colon, h16, Cat dcolon h16, Cat (Ch 32 32) (Cat port ha_end)], [Rep 0 1 HEXDIG,
        dcolon, Cat (Ch 32 32) (Cat port ha_end)], [Rep 0 1 HEXDIG, Ch 58 58, Rep 0 4 h16_colon,
        h16, dcolon, Cat (Ch 32 32) (Cat port ha_end)]], [], [[Rep 0 1 HEXDIG, Ch 58 58, Rep 4 4
        h16_colon, ls32, Ch 32 32], [Rep 0 1 HEXDIG, Cat dcolon (Cat (Rep 3 3 h16_colon) ls32), Ch
        32 32], [Rep 0 1 HEXDIG, Cat dcolon (Cat (Rep 2 2 h16_colon) ls32), Ch 32 32], [Rep 0 1
        HEXDIG, Ch 58 58, h16, Cat dcolon (Cat (Rep 2 2 h16_colon) ls32), Ch 32 32], [Rep 0 1
        HEXDIG, Cat dcolon (Cat h16_colon ls32), Ch 32 32], [Rep 0 1 HEXDIG, Ch 58 58, Rep 0 1
        h16_colon, h16, Cat dcolon (Cat h16_colon ls32), Ch 32 32], [Rep 0 1 HEXDIG, Cat dcolon
        ls32, Ch 32 32], [Rep 0 1 HEXDIG, Ch 58 58, Rep 0 2 h16_colon, h16, Cat dcolon ls32, Ch 32
        32], [Rep 0 1 HEXDIG, Cat dcolon h16, Ch 32 32], [Rep 0 1 HEXDIG, Ch 58 58, Rep 0 3
        h16_colon, h16, Cat dcolon h16, Ch 32 32], [Rep 0 1 HEXDIG, dcolon, Ch 32 32], [Rep 0 1
        HEXDIG, Ch 58 58, Rep 0 4 h16_colon, h16, dcolon, Ch 32 32]]]])
      else
      if s = 74 then ([-128, 58, 59], [[[], [], [[Ch 58 58, Rep 4 4 h16_colon, ls32, Cat (Ch 32
        32) port], [Cat dcolon (Cat (Rep 3 3 h16_colon) ls32), Cat (Ch 32 32) port], [Cat dcolon
        (Cat (Rep 2 2 h16_colon) ls32), Cat (Ch 32 32) port], [Ch 58 58, h16, Cat dcolon (Cat (Rep
        2 2 h16_colon) ls32), Cat (Ch 32 32) port], [Cat dcolon (Cat h16_colon ls32), Cat (Ch 32
        32) port], [Ch 58 58, Rep 0 1 h16_colon, h16, Cat dcolon (Cat h16_colon ls32), Cat (Ch 32
        32) port], [Cat dcolon ls32, Cat (Ch 32 32) port], [Ch 58 58, Rep 0 2 h16_colon, h16, Cat
        dcolon ls32, Cat (Ch 32 32) port], [Cat dcolon h16, Cat (Ch 32 32) port], [Ch 58 58, Rep 0
        3 h16_colon, h16, Cat dcolon h16, Cat (Ch 32 32) port], [dcolon, Cat (Ch 32 32) port], [Ch
        58 58, Rep 0 4 h16_colon, h16, dcolon, Cat (Ch 32 32) port]], [[Ch 58 58, Rep 4 4
        h16_colon, ls32, Cat (Ch 32 32) (Cat port ha_end)], [Cat dcolon (Cat (Rep 3 3 h16_colon)
        ls32), Cat (Ch 32 32) (Cat port ha_end)], [Cat dcolon (Cat (Rep 2 2 h16_colon) ls32), Cat
        (Ch 32 32) (Cat port ha_end)], [Ch 58 58, h16, Cat dcolon (Cat (Rep 2 2 h16_colon) ls32),
        Cat (Ch 32 32) (Cat port ha_end)], [Cat dcolon (Cat h16_colon ls32), Cat (Ch 32 32) (Cat
        port ha_end)], [Ch 58 58, Rep 0 1 h16_colon, h16, Cat dcolon (Cat h16_colon ls32), Cat (Ch
        32 32) (Cat port ha_end)], [Cat dcolon ls32, Cat (Ch 32 32) (Cat port ha_end)], [Ch 58 58,
        Rep 0 2 h16_colon, h16, Cat dcolon ls32, Cat (Ch 32 32) (Cat port ha_end)], [Cat dcolon
        h16, Cat (Ch 32 32) (Cat port ha_end)], [Ch 58 58, Rep 0 3 h16_colon, h16, Cat dcolon h16,
        Cat (Ch 32 32) (Cat port ha_end)], [dcolon, Cat (Ch 32 32) (Cat port ha_end)], [Ch 58 58,
        Rep 0 4 h16_colon, h16, dcolon, Cat (Ch 32 32) (Cat port ha_end)]], [], [[Ch 58 58, Rep 4
        4 h16_colon, ls32, Ch 32 32], [Cat dcolon (Cat (Rep 3 3 h16_colon) ls32), Ch 32 32], [Cat
        dcolon (Cat (Rep 2 2 h16_colon) ls32), Ch 32 32], [Ch 58 58, h16, Cat dcolon (Cat (Rep 2 2
        h16_colon) ls32), Ch 32 32], [Cat dcolon (Cat h16_colon ls32), Ch 32 32], [Ch 58 58, Rep 0
        1 h16_colon, h16, Cat dcolon (Cat h16_colon ls32), Ch 32 32], [Cat dcolon ls32, Ch 32 32],
        [Ch 58 58, Rep 0 2 h16_colon, h16, Cat dcolon ls32, Ch 32 32], [Cat dcolon h16, Ch 32 32],
        [Ch 58 58, Rep 0 3 h16_colon, h16, Cat dcolon h16, Ch 32 32], [dcolon, Ch 32 32], [Ch 58
        58, Rep 0 4 h16_colon, h16, dcolon, Ch 32 32]]]])
      else
      if s = 75 then ([-128, 48, 58, 59, 65, 71, 97, 103], [[[], [], [[Rep 4 4 h16_colon, ls32,
        Cat (Ch 32 32) port], [Ch 58 58, Cat (Rep 3 3 h16_colon) ls32, Cat (Ch 32 32) port], [Ch
        58 58, Cat (Rep 2 2 h16_colon) ls32, Cat (Ch 32 32) port], [h16, Cat dcolon (Cat (Rep 2 2
        h16_colon) ls32), Cat (Ch 32 32) port], [Ch 58 58, Cat h16_colon ls32, Cat (Ch 32 32)
        port], [Rep 0 1 h16_colon, h16, Cat dcolon (Cat h16_colon ls32), Cat (Ch 32 32) port], [Ch
        58 58, ls32, Cat (Ch 32 32) port], [Rep 0 2 h16_colon, h16, Cat dcolon ls32, Cat (Ch 32
        32) port], [Ch 58 58, h16, Cat (Ch 32 32) port], [Rep 0 3 h16_colon, h16, Cat dcolon h16,
        Cat (Ch 32 32) port], [Ch 58 58, Cat (Ch 32 32) port], [Rep 0 4 h16_colon, h16, dcolon,
        Cat (Ch 32 32) port]], [[Rep 4 4 h16_colon, ls32, Cat (Ch 32 32) (Cat port ha_end)], [Ch
        58 58, Cat (Rep 3 3 h16_colon) ls32, Cat (Ch 32 32) (Cat port ha_end)], [Ch 58 58, Cat
        (Rep 2 2 h16_colon) ls32, Cat (Ch 32 32) (Cat port ha_end)], [h16, Cat dcolon (Cat (Rep 2
        2 h16_colon) ls32), Cat (Ch 32 32) (Cat port ha_end)], [Ch 58 58, Cat h16_colon ls32, Cat
        (Ch 32 32) (Cat port ha_end)], [Rep 0 1 h16_colon, h16, Cat dcolon (Cat h16_colon ls32),
        Cat (Ch 32 32) (Cat port ha_end)], [Ch 58 58, ls32, Cat (Ch 32 32) (Cat port ha_end)],
        [Rep 0 2 h16_colon, h16, Cat dcolon ls32, Cat (Ch 32 32) (Cat port ha_end)], [Ch 58 58,
        h16, Cat (Ch 32 32) (Cat port ha_end)], [Rep 0 3 h16_colon, h16, Cat dcolon h16, Cat (Ch
        32 32) (Cat port ha_end)], [Ch 58 58, Cat (Ch 32 32) (Cat port ha_end)], [Rep 0 4
        h16_colon, h16, dcolon, Cat (Ch 32 32) (Cat port ha_end)]], [], [[Rep 4 4 h16_colon, ls32,
        Ch 32 32], [Ch 58 58, Cat (Rep 3 3 h16_colon) ls32, Ch 32 32], [Ch 58 58, Cat (Rep 2 2
        h16_colon) ls32, Ch 32 32], [h16, Cat dcolon (Cat (Rep 2 2 h16_colon) ls32), Ch 32 32],
        [Ch 58 58, Cat h16_colon ls32, Ch 32 32], [Rep 0 1 h16_colon, h16, Cat dcolon (Cat
        h16_colon ls32), Ch 32 32], [Ch 58 58, ls32, Ch 32 32], [Rep 0 2 h16_colon, h16, Cat
        dcolon ls32, Ch 32 32], [Ch 58 58, h16, Ch 32 32], [Rep 0 3 h16_colon, h16, Cat dcolon
        h16, Ch 32 32], [Ch 58 58, Ch 32 32], [Rep 0 4 h16_colon, h16, dcolon, Ch 32 32]]]])
      else
      if s = 76 then ([-128, 48, 58, 59, 65, 71, 97, 103], [[[], [], [[Rep 0 3 HEXDIG, Ch 58 58,
        Rep 3 3 h16_colon, ls32, Cat (Ch 32 32) port], [Rep 0 3 HEXDIG, Cat dcolon (Cat (Rep 2 2
        h16_colon) ls32), Cat (Ch 32 32) port], [Rep 0 3 HEXDIG, Cat dcolon (Cat h16_colon ls32),
        Cat (Ch 32 32) port], [Rep 0 3 HEXDIG, Ch 58 58, h16, Cat dcolon (Cat h16_colon ls32), Cat
        (Ch 32 32) port], [Rep 0 3 HEXDIG, Cat dcolon ls32, Cat (Ch 32 32) port], [Rep 0 3 HEXDIG,
        Ch 58 58, Rep 0 1 h16_colon, h16, Cat dcolon ls32, Cat (Ch 32 32) port], [Rep 0 3 HEXDIG,
        Cat dcolon h16, Cat (Ch 32 32) port], [Rep 0 3 HEXDIG, Ch 58 58, Rep 0 2 h16_colon, h16,
        Cat dcolon h16, Cat (Ch 32 32) port], [Rep 0 3 HEXDIG, dcolon, Cat (Ch 32 32) port], [Rep
        0 3 HEXDIG, Ch 58 58, Rep 0 3 h16_colon, h16, dcolon, Cat (Ch 32 32) port]], [[Rep 0 3
        HEXDIG, Ch 58 58, Rep 3 3 h16_colon, ls32, Cat (Ch 32 32) (Cat port ha_end)], [Rep 0 3
        HEXDIG, Cat dcolon (Cat (Rep 2 2 h16_colon) ls32), Cat (Ch 32 32) (Cat port ha_end)], [Rep
        0 3 HEXDIG, Cat dcolon (Cat h16_colon ls32), Cat (Ch 32 32) (Cat port ha_end)], [Rep 0 3
        HEXDIG, Ch 58 58, h16, Cat dcolon (Cat h16_colon ls32), Cat (Ch 32 32) (Cat port ha_end)],
        [Rep 0 3 HEXDIG, Cat dcolon ls32, Cat (Ch 32 32) (Cat port ha_end)], [Rep 0 3 HEXDIG, Ch
        58 58, Rep 0 1 h16_colon, h16, Cat dcolon ls32, Cat (Ch 32 32) (Cat port ha_end)], [Rep 0
        3 HEXDIG, Cat dcolon h16, Cat (Ch 32 32) (Cat port ha_end)], [Rep 0 3 HEXDIG, Ch 58 58,
        Rep 0 2 h16_colon, h16, Cat dcolon h16, Cat (Ch 32 32) (Cat port ha_end)], [Rep 0 3
        HEXDIG, dcolon, Cat (Ch 32 32) (Cat port ha_end)], [Rep 0 3 HEXDIG, Ch 58 58, Rep 0 3
        h16_colon, h16, dcolon, Cat (Ch 32 32) (Cat port ha_end)]], [], [[Rep 0 3 HEXDIG, Ch 58
        58, Rep 3 3 h16_colon, ls32, Ch 32 32], [Rep 0 3 HEXDIG, Cat dcolon (Cat (Rep 2 2
        h16_colon) ls32), Ch 32 32], [Rep 0 3 HEXDIG, Cat dcolon (Cat h16_colon ls32), Ch 32 32],
        [Rep 0 3 HEXDIG, Ch 58 58, h16, Cat dcolon (Cat h16_colon ls32), Ch 32 32], [Rep 0 3
        HEXDIG, Cat dcolon ls32, Ch 32 32], [Rep 0 3 HEXDIG, Ch 58 58, Rep 0 1 h16_colon, h16, Cat
        dcolon ls32, Ch 32 32], [Rep 0 3 HEXDIG, Cat dcolon h16, Ch 32 32], [Rep 0 3 HEXDIG, Ch 58
        58, Rep 0 2 h16_colon, h16, Cat dcolon h16, Ch 32 32], [Rep 0 3 HEXDIG, dcolon, Ch 32 32],
        [Rep 0 3 HEXDIG, Ch 58 58, Rep 0 3 h16_colon, h16, dcolon, Ch 32 32]]]])
      else
      if s = 77 then ([-128, 48, 58, 59, 65, 71, 97, 103], [[[], [], [[Rep 0 2 HEXDIG, Ch 58 58,
        Rep 3 3 h16_colon, ls32, Cat (Ch 32 32) port], [Rep 0 2 HEXDIG, Cat dcolon (Cat (Rep 2 2
        h16_colon) ls32), Cat (Ch 32 32) port], [Rep 0 2 HEXDIG, Cat dcolon (Cat h16_colon ls32),
        Cat (Ch 32 32) port], [Rep 0 2 HEXDIG, Ch 58 58, h16, Cat dcolon (Cat h16_colon ls32), Cat
        (Ch 32 32) port], [Rep 0 2 HEXDIG, Cat dcolon ls32, Cat (Ch 32 32) port], [Rep 0 2 HEXDIG,
        Ch 58 58, Rep 0 1 h16_colon, h16, Cat dcolon ls32, Cat (Ch 32 32) port], [Rep 0 2 HEXDIG,
        Cat dcolon h16, Cat (Ch 32 32) port], [Rep 0 2 HEXDIG, Ch 58 58, Rep 0 2 h16_colon, h16,
        Cat dcolon h16, Cat (Ch 32 32) port], [Rep 0 2 HEXDIG, dcolon, Cat (Ch 32 32) port], [Rep
        0 2 HEXDIG, Ch 58 58, Rep 0 3 h16_colon, h16, dcolon, Cat (Ch 32 32) port]], [[Rep 0 2
        HEXDIG, Ch 58 58, Rep 3 3 h16_colon, ls32, Cat (Ch 32 32) (Cat port ha_end)], [Rep 0 2
        HEXDIG, Cat dcolon (Cat (Rep 2 2 h16_colon) ls32), Cat (Ch 32 32) (Cat port ha_end)], [Rep
        0 2 HEXDIG, Cat dcolon (Cat h16_colon ls32), Cat (Ch 32 32) (Cat port ha_end)], [Rep 0 2
        HEXDIG, Ch 58 58, h16, Cat dcolon (Cat h16_colon ls32), Cat (Ch 32 32) (Cat port ha_end)],
        [Rep 0 2 HEXDIG, Cat dcolon ls32, Cat (Ch 32 32) (Cat port ha_end)], [Rep 0 2 HEXDIG, Ch
        58 58, Rep 0 1 h16_colon, h16, Cat dcolon ls32, Cat (Ch 32 32) (Cat port ha_end)], [Rep 0
        2 HEXDIG, Cat dcolon h16, Cat (Ch 32 32) (Cat port ha_end)], [Rep 0 2 HEXDIG, Ch 58 58,
        Rep 0 2 h16_colon, h16, Cat dcolon h16, Cat (Ch 32 32) (Cat port ha_end)], [Rep 0 2
        HEXDIG, dcolon, Cat (Ch 32 32) (Cat port ha_end)], [Rep 0 2 HEXDIG, Ch 58 58, Rep 0 3
        h16_colon, h16, dcolon, Cat (Ch 32 32) (Cat port ha_end)]], [], [[Rep 0 2 HEXDIG, Ch 58
        58, Rep 3 3 h16_colon, ls32, Ch 32 32], [Rep 0 2 HEXDIG, Cat dcolon (Cat (Rep 2 2
        h16_colon) ls32), Ch 32 32], [Rep 0 2 HEXDIG, Cat dcolon (Cat h16_colon ls32), Ch 32 32],
        [Rep 0 2 HEXDIG, Ch 58 58, h16, Cat dcolon (Cat h16_colon ls32), Ch 32 32], [Rep 0 2
        HEXDIG, Cat dcolon ls32, Ch 32 32], [Rep 0 2 HEXDIG, Ch 58 58, Rep 0 1 h16_colon, h16, Cat
        dcolon ls32, Ch 32 32], [Rep 0 2 HEXDIG, Cat dcolon h16, Ch 32 32], [Rep 0 2 HEXDIG, Ch 58
        58, Rep 0 2 h16_colon, h16, Cat dcolon h16, Ch 32 32], [Rep 0 2 HEXDIG, dcolon, Ch 32 32],
        [Rep 0 2 HEXDIG, Ch 58 58, Rep 0 3 h16_colon, h16, dcolon, Ch 32 32]]]])
      else
      if s = 78 then ([-128, 48, 58, 59, 65, 71, 97, 103], [[[], [], [[Rep 0 1 HEXDIG, Ch 58 58,
        Rep 3 3 h16_colon, ls32, Cat (Ch 32 32) port], [Rep 0 1 HEXDIG, Cat dcolon (Cat (Rep 2 2
        h16_colon) ls32), Cat (Ch 32 32) port], [Rep 0 1 HEXDIG, Cat dcolon (Cat h16_colon ls32),
        Cat (Ch 32 32) port], [Rep 0 1 HEXDIG, Ch 58 58, h16, Cat dcolon (Cat h16_colon ls32), Cat
        (Ch 32 32) port], [Rep 0 1 HEXDIG, Cat dcolon ls32, Cat (Ch 32 32) port], [Rep 0 1 HEXDIG,
        Ch 58 58, Rep 0 1 h16_colon, h16, Cat dcolon ls32, Cat (Ch 32 32) port], [Rep 0 1 HEXDIG,
        Cat dcolon h16, Cat (Ch 32 32) port], [Rep 0 1 HEXDIG, Ch 58 58, Rep 0 2 h16_colon, h16,
        Cat dcolon h16, Cat (Ch 32 32) port], [Rep 0 1 HEXDIG, dcolon, Cat (Ch 32 32) port], [Rep
        0 1 HEXDIG, Ch 58 58, Rep 0 3 h16_colon, h16, dcolon, Cat (Ch 32 32) port]], [[Rep 0 1
        HEXDIG, Ch 58 58, Rep 3 3 h16_colon, ls32, Cat (Ch 32 32) (Cat port ha_end)], [Rep 0 1
        HEXDIG, Cat dcolon (Cat (Rep 2 2 h16_colon) ls32), Cat (Ch 32 32) (Cat port ha_end)], [Rep
        0 1 HEXDIG, Cat dcolon (Cat h16_colon ls32), Cat (Ch 32 32) (Cat port ha_end)], [Rep 0 1
        HEXDIG, Ch 58 58, h16, Cat dcolon (Cat h16_colon ls32), Cat (Ch 32 32) (Cat port ha_end)],
        [Rep 0 1 HEXDIG, Cat dcolon ls32, Cat (Ch 32 32) (Cat port ha_end)], [Rep 0 1 HEXDIG, Ch
        58 58, Rep 0 1 h16_colon, h16, Cat dcolon ls32, Cat (Ch 32 32) (Cat port ha_end)], [Rep 0
        1 HEXDIG, Cat dcolon h16, Cat (Ch 32 32) (Cat port ha_end)], [Rep 0 1 HEXDIG, Ch 58 58,
        Rep 0 2 h16_colon, h16, Cat dcolon h16, Cat (Ch 32 32) (Cat port ha_end)], [Rep 0 1
        HEXDIG, dcolon, Cat (Ch 32 32) (Cat port ha_end)], [Rep 0 1 HEXDIG, Ch 58 58, Rep 0 3
        h16_colon, h16, dcolon, Cat (Ch 32 32) (Cat port ha_end)]], [], [[Rep 0 1 HEXDIG, Ch 58
        58, Rep 3 3 h16_colon, ls32, Ch 32 32], [Rep 0 1 HEXDIG, Cat dcolon (Cat (Rep 2 2
        h16_colon) ls32), Ch 32 32], [Rep 0 1 HEXDIG, Cat dcolon (Cat h16_colon ls32), Ch 32 32],
        [Rep 0 1 HEXDIG, Ch 58 58, h16, Cat dcolon (Cat h16_colon ls32), Ch 32 32], [Rep 0 1
        HEXDIG, Cat dcolon ls32, Ch 32 32], [Rep 0 1 HEXDIG, Ch 58 58, Rep 0 1 h16_colon, h16, Cat
        dcolon ls32, Ch 32 32], [Rep 0 1 HEXDIG, Cat dcolon h16, Ch 32 32], [Rep 0 1 HEXDIG, Ch 58
        58, Rep 0 2 h16_colon, h16, Cat dcolon h16, Ch 32 32], [Rep 0 1 HEXDIG, dcolon, Ch 32 32],
        [Rep 0 1 HEXDIG, Ch 58 58, Rep 0 3 h16_colon, h16, dcolon, Ch 32 32]]]])
      else
      if s = 79 then ([-128, 58, 59], [[[], [], [[Ch 58 58, Rep 3 3 h16_colon, ls32, Cat (Ch 32
        32) port], [Cat dcolon (Cat (Rep 2 2 h16_colon) ls32), Cat (Ch 32 32) port], [Cat dcolon
        (Cat h16_colon ls32), Cat (Ch 32 32) port], [Ch 58 58, h16, Cat dcolon (Cat h16_colon
        ls32), Cat (Ch 32 32) port], [Cat dcolon ls32, Cat (Ch 32 32) port], [Ch 58 58, Rep 0 1
        h16_colon, h16, Cat dcolon ls32, Cat (Ch 32 32) port], [Cat dcolon h16, Cat (Ch 32 32)
        port], [Ch 58 58, Rep 0 2 h16_colon, h16, Cat dcolon h16, Cat (Ch 32 32) port], [dcolon,
        Cat (Ch 32 32) port], [Ch 58 58, Rep 0 3 h16_colon, h16, dcolon, Cat (Ch 32 32) port]],
        [[Ch 58 58, Rep 3 3 h16_colon, ls32, Cat (Ch 32 32) (Cat port ha_end)], [Cat dcolon (Cat
        (Rep 2 2 h16_colon) ls32), Cat (Ch 32 32) (Cat port ha_end)], [Cat dcolon (Cat h16_colon
        ls32), Cat (Ch 32 32) (Cat port ha_end)], [Ch 58 58, h16, Cat dcolon (Cat h16_colon ls32),
        Cat (Ch 32 32) (Cat port ha_end)], [Cat dcolon ls32, Cat (Ch 32 32) (Cat port ha_end)],
        [Ch 58 58, Rep 0 1 h16_colon, h16, Cat dcolon ls32, Cat (Ch 32 32) (Cat port ha_end)],
        [Cat dcolon h16, Cat (Ch 32 32) (Cat port ha_end)], [Ch 58 58, Rep 0 2 h16_colon, h16, Cat
        dcolon h16, Cat (Ch 32 32) (Cat port ha_end)], [dcolon, Cat (Ch 32 32) (Cat port ha_end)],
        [Ch 58 58, Rep 0 3 h16_colon, h16, dcolon, Cat (Ch 32 32) (Cat port ha_end)]], [], [[Ch 58
        58, Rep 3 3 h16_colon, ls32, Ch 32 32], [Cat dcolon (Cat (Rep 2 2 h16_colon) ls32), Ch 32
        32], [Cat dcolon (Cat h16_colon ls32), Ch 32 32], [Ch 58 58, h16, Cat dcolon (Cat
        h16_colon ls32), Ch 32 32], [Cat dcolon ls32, Ch 32 32], [Ch 58 58, Rep 0 1 h16_colon,
        h16, Cat dcolon ls32, Ch 32 32], [Cat dcolon h16, Ch 32 32], [Ch 58 58, Rep 0 2 h16_colon,
        h16, Cat dcolon h16, Ch 32 32], [dcolon, Ch 32 32], [Ch 58 58, Rep 0 3 h16_colon, h16,
        dcolon, Ch 32 32]]]])
      else
      ([-128, 48, 58, 59, 65, 71, 97, 103], [[[], [], [[Rep 3 3 h16_colon, ls32, Cat (Ch 32 32)
        port], [Ch 58 58, Cat (Rep 2 2 h16_colon) ls32, Cat (Ch 32 32) port], [Ch 58 58, Cat
        h16_colon ls32, Cat (Ch 32 32) port], [h16, Cat dcolon (Cat h16_colon ls32), Cat (Ch 32
        32) port], [Ch 58 58, ls32, Cat (Ch 32 32) port], [Rep 0 1 h16_colon, h16, Cat dcolon
        ls32, Cat (Ch 32 32) port], [Ch 58 58, h16, Cat (Ch 32 32) port], [Rep 0 2 h16_colon, h16,
        Cat dcolon h16, Cat (Ch 32 32) port], [Ch 58 58, Cat (Ch 32 32) port], [Rep 0 3 h16_colon,
        h16, dcolon, Cat (Ch 32 32) port]], [[Rep 3 3 h16_colon, ls32, Cat (Ch 32 32) (Cat port
        ha_end)], [Ch 58 58, Cat (Rep 2 2 h16_colon) ls32, Cat (Ch 32 32) (Cat port ha_end)], [Ch
        58 58, Cat h16_colon ls32, Cat (Ch 32 32) (Cat port ha_end)], [h16, Cat dcolon (Cat
        h16_colon ls32), Cat (Ch 32 32) (Cat port ha_end)], [Ch 58 58, ls32, Cat (Ch 32 32) (Cat
        port ha_end)], [Rep 0 1 h16_colon, h16, Cat dcolon ls32, Cat (Ch 32 32) (Cat port
        ha_end)], [Ch 58 58, h16, Cat (Ch 32 32) (Cat port ha_end)], [Rep 0 2 h16_colon, h16, Cat
        dcolon h16, Cat (Ch 32 32) (Cat port ha_end)], [Ch 58 58, Cat (Ch 32 32) (Cat port
        ha_end)], [Rep 0 3 h16_colon, h16, dcolon, Cat (Ch 32 32) (Cat port ha_end)]], [], [[Rep 3
        3 h16_colon, ls32, Ch 32 32], [Ch 58 58, Cat (Rep 2 2 h16_colon) ls32, Ch 32 32], [Ch 58
        58, Cat h16_colon ls32, Ch 32 32], [h16, Cat dcolon (Cat h16_colon ls32), Ch 32 32], [Ch
        58 58, ls32, Ch 32 32], [Rep 0 1 h16_colon, h16, Cat dcolon ls32, Ch 32 32], [Ch 58 58,
        h16, Ch 32 32], [Rep 0 2 h16_colon, h16, Cat dcolon h16, Ch 32 32], [Ch 58 58, Ch 32 32],
        [Rep 0 3 h16_colon, h16, dcolon, Ch 32 32]]]]))"

definition ha_expects_11 :: certificate where
  "ha_expects_11 s =
     (if s = 81 then ([-128, 48, 58, 59, 65, 71, 97, 103], [[[], [], [[Rep 0 3 HEXDIG, Ch 58 58,
        Rep 2 2 h16_colon, ls32, Cat (Ch 32 32) port], [Rep 0 3 HEXDIG, Cat dcolon (Cat h16_colon
        ls32), Cat (Ch 32 32) port], [Rep 0 3 HEXDIG, Cat dcolon ls32, Cat (Ch 32 32) port], [Rep
        0 3 HEXDIG, Ch 58 58, h16, Cat dcolon ls32, Cat (Ch 32 32) port], [Rep 0 3 HEXDIG, Cat
        dcolon h16, Cat (Ch 32 32) port], [Rep 0 3 HEXDIG, Ch 58 58, Rep 0 1 h16_colon, h16, Cat
        dcolon h16, Cat (Ch 32 32) port], [Rep 0 3 HEXDIG, dcolon, Cat (Ch 32 32) port], [Rep 0 3
        HEXDIG, Ch 58 58, Rep 0 2 h16_colon, h16, dcolon, Cat (Ch 32 32) port]], [[Rep 0 3 HEXDIG,
        Ch 58 58, Rep 2 2 h16_colon, ls32, Cat (Ch 32 32) (Cat port ha_end)], [Rep 0 3 HEXDIG, Cat
        dcolon (Cat h16_colon ls32), Cat (Ch 32 32) (Cat port ha_end)], [Rep 0 3 HEXDIG, Cat
        dcolon ls32, Cat (Ch 32 32) (Cat port ha_end)], [Rep 0 3 HEXDIG, Ch 58 58, h16, Cat dcolon
        ls32, Cat (Ch 32 32) (Cat port ha_end)], [Rep 0 3 HEXDIG, Cat dcolon h16, Cat (Ch 32 32)
        (Cat port ha_end)], [Rep 0 3 HEXDIG, Ch 58 58, Rep 0 1 h16_colon, h16, Cat dcolon h16, Cat
        (Ch 32 32) (Cat port ha_end)], [Rep 0 3 HEXDIG, dcolon, Cat (Ch 32 32) (Cat port ha_end)],
        [Rep 0 3 HEXDIG, Ch 58 58, Rep 0 2 h16_colon, h16, dcolon, Cat (Ch 32 32) (Cat port
        ha_end)]], [], [[Rep 0 3 HEXDIG, Ch 58 58, Rep 2 2 h16_colon, ls32, Ch 32 32], [Rep 0 3
        HEXDIG, Cat dcolon (Cat h16_colon ls32), Ch 32 32], [Rep 0 3 HEXDIG, Cat dcolon ls32, Ch
        32 32], [Rep 0 3 HEXDIG, Ch 58 58, h16, Cat dcolon ls32, Ch 32 32], [Rep 0 3 HEXDIG, Cat
        dcolon h16, Ch 32 32], [Rep 0 3 HEXDIG, Ch 58 58, Rep 0 1 h16_colon, h16, Cat dcolon h16,
        Ch 32 32], [Rep 0 3 HEXDIG, dcolon, Ch 32 32], [Rep 0 3 HEXDIG, Ch 58 58, Rep 0 2
        h16_colon, h16, dcolon, Ch 32 32]]]])
      else
      if s = 82 then ([-128, 48, 58, 59, 65, 71, 97, 103], [[[], [], [[Rep 0 2 HEXDIG, Ch 58 58,
        Rep 2 2 h16_colon, ls32, Cat (Ch 32 32) port], [Rep 0 2 HEXDIG, Cat dcolon (Cat h16_colon
        ls32), Cat (Ch 32 32) port], [Rep 0 2 HEXDIG, Cat dcolon ls32, Cat (Ch 32 32) port], [Rep
        0 2 HEXDIG, Ch 58 58, h16, Cat dcolon ls32, Cat (Ch 32 32) port], [Rep 0 2 HEXDIG, Cat
        dcolon h16, Cat (Ch 32 32) port], [Rep 0 2 HEXDIG, Ch 58 58, Rep 0 1 h16_colon, h16, Cat
        dcolon h16, Cat (Ch 32 32) port], [Rep 0 2 HEXDIG, dcolon, Cat (Ch 32 32) port], [Rep 0 2
        HEXDIG, Ch 58 58, Rep 0 2 h16_colon, h16, dcolon, Cat (Ch 32 32) port]], [[Rep 0 2 HEXDIG,
        Ch 58 58, Rep 2 2 h16_colon, ls32, Cat (Ch 32 32) (Cat port ha_end)], [Rep 0 2 HEXDIG, Cat
        dcolon (Cat h16_colon ls32), Cat (Ch 32 32) (Cat port ha_end)], [Rep 0 2 HEXDIG, Cat
        dcolon ls32, Cat (Ch 32 32) (Cat port ha_end)], [Rep 0 2 HEXDIG, Ch 58 58, h16, Cat dcolon
        ls32, Cat (Ch 32 32) (Cat port ha_end)], [Rep 0 2 HEXDIG, Cat dcolon h16, Cat (Ch 32 32)
        (Cat port ha_end)], [Rep 0 2 HEXDIG, Ch 58 58, Rep 0 1 h16_colon, h16, Cat dcolon h16, Cat
        (Ch 32 32) (Cat port ha_end)], [Rep 0 2 HEXDIG, dcolon, Cat (Ch 32 32) (Cat port ha_end)],
        [Rep 0 2 HEXDIG, Ch 58 58, Rep 0 2 h16_colon, h16, dcolon, Cat (Ch 32 32) (Cat port
        ha_end)]], [], [[Rep 0 2 HEXDIG, Ch 58 58, Rep 2 2 h16_colon, ls32, Ch 32 32], [Rep 0 2
        HEXDIG, Cat dcolon (Cat h16_colon ls32), Ch 32 32], [Rep 0 2 HEXDIG, Cat dcolon ls32, Ch
        32 32], [Rep 0 2 HEXDIG, Ch 58 58, h16, Cat dcolon ls32, Ch 32 32], [Rep 0 2 HEXDIG, Cat
        dcolon h16, Ch 32 32], [Rep 0 2 HEXDIG, Ch 58 58, Rep 0 1 h16_colon, h16, Cat dcolon h16,
        Ch 32 32], [Rep 0 2 HEXDIG, dcolon, Ch 32 32], [Rep 0 2 HEXDIG, Ch 58 58, Rep 0 2
        h16_colon, h16, dcolon, Ch 32 32]]]])
      else
      if s = 83 then ([-128, 48, 58, 59, 65, 71, 97, 103], [[[], [], [[Rep 0 1 HEXDIG, Ch 58 58,
        Rep 2 2 h16_colon, ls32, Cat (Ch 32 32) port], [Rep 0 1 HEXDIG, Cat dcolon (Cat h16_colon
        ls32), Cat (Ch 32 32) port], [Rep 0 1 HEXDIG, Cat dcolon ls32, Cat (Ch 32 32) port], [Rep
        0 1 HEXDIG, Ch 58 58, h16, Cat dcolon ls32, Cat (Ch 32 32) port], [Rep 0 1 HEXDIG, Cat
        dcolon h16, Cat (Ch 32 32) port], [Rep 0 1 HEXDIG, Ch 58 58, Rep 0 1 h16_colon, h16, Cat
        dcolon h16, Cat (Ch 32 32) port], [Rep 0 1 HEXDIG, dcolon, Cat (Ch 32 32) port], [Rep 0 1
        HEXDIG, Ch 58 58, Rep 0 2 h16_colon, h16, dcolon, Cat (Ch 32 32) port]], [[Rep 0 1 HEXDIG,
        Ch 58 58, Rep 2 2 h16_colon, ls32, Cat (Ch 32 32) (Cat port ha_end)], [Rep 0 1 HEXDIG, Cat
        dcolon (Cat h16_colon ls32), Cat (Ch 32 32) (Cat port ha_end)], [Rep 0 1 HEXDIG, Cat
        dcolon ls32, Cat (Ch 32 32) (Cat port ha_end)], [Rep 0 1 HEXDIG, Ch 58 58, h16, Cat dcolon
        ls32, Cat (Ch 32 32) (Cat port ha_end)], [Rep 0 1 HEXDIG, Cat dcolon h16, Cat (Ch 32 32)
        (Cat port ha_end)], [Rep 0 1 HEXDIG, Ch 58 58, Rep 0 1 h16_colon, h16, Cat dcolon h16, Cat
        (Ch 32 32) (Cat port ha_end)], [Rep 0 1 HEXDIG, dcolon, Cat (Ch 32 32) (Cat port ha_end)],
        [Rep 0 1 HEXDIG, Ch 58 58, Rep 0 2 h16_colon, h16, dcolon, Cat (Ch 32 32) (Cat port
        ha_end)]], [], [[Rep 0 1 HEXDIG, Ch 58 58, Rep 2 2 h16_colon, ls32, Ch 32 32], [Rep 0 1
        HEXDIG, Cat dcolon (Cat h16_colon ls32), Ch 32 32], [Rep 0 1 HEXDIG, Cat dcolon ls32, Ch
        32 32], [Rep 0 1 HEXDIG, Ch 58 58, h16, Cat dcolon ls32, Ch 32 32], [Rep 0 1 HEXDIG, Cat
        dcolon h16, Ch 32 32], [Rep 0 1 HEXDIG, Ch 58 58, Rep 0 1 h16_colon, h16, Cat dcolon h16,
        Ch 32 32], [Rep 0 1 HEXDIG, dcolon, Ch 32 32], [Rep 0 1 HEXDIG, Ch 58 58, Rep 0 2
        h16_colon, h16, dcolon, Ch 32 32]]]])
      else
      if s = 84 then ([-128, 58, 59], [[[], [], [[Ch 58 58, Rep 2 2 h16_colon, ls32, Cat (Ch 32
        32) port], [Cat dcolon (Cat h16_colon ls32), Cat (Ch 32 32) port], [Cat dcolon ls32, Cat
        (Ch 32 32) port], [Ch 58 58, h16, Cat dcolon ls32, Cat (Ch 32 32) port], [Cat dcolon h16,
        Cat (Ch 32 32) port], [Ch 58 58, Rep 0 1 h16_colon, h16, Cat dcolon h16, Cat (Ch 32 32)
        port], [dcolon, Cat (Ch 32 32) port], [Ch 58 58, Rep 0 2 h16_colon, h16, dcolon, Cat (Ch
        32 32) port]], [[Ch 58 58, Rep 2 2 h16_colon, ls32, Cat (Ch 32 32) (Cat port ha_end)],
        [Cat dcolon (Cat h16_colon ls32), Cat (Ch 32 32) (Cat port ha_end)], [Cat dcolon ls32, Cat
        (Ch 32 32) (Cat port ha_end)], [Ch 58 58, h16, Cat dcolon ls32, Cat (Ch 32 32) (Cat port
        ha_end)], [Cat dcolon h16, Cat (Ch 32 32) (Cat port ha_end)], [Ch 58 58, Rep 0 1
        h16_colon, h16, Cat dcolon h16, Cat (Ch 32 32) (Cat port ha_end)], [dcolon, Cat (Ch 32 32)
        (Cat port ha_end)], [Ch 58 58, Rep 0 2 h16_colon, h16, dcolon, Cat (Ch 32 32) (Cat port
        ha_end)]], [], [[Ch 58 58, Rep 2 2 h16_colon, ls32, Ch 32 32], [Cat dcolon (Cat h16_colon
        ls32), Ch 32 32], [Cat dcolon ls32, Ch 32 32], [Ch 58 58, h16, Cat dcolon ls32, Ch 32 32],
        [Cat dcolon h16, Ch 32 32], [Ch 58 58, Rep 0 1 h16_colon, h16, Cat dcolon h16, Ch 32 32],
        [dcolon, Ch 32 32], [Ch 58 58, Rep 0 2 h16_colon, h16, dcolon, Ch 32 32]]]])
      else
      if s = 85 then ([-128, 48, 58, 59, 65, 71, 97, 103], [[[], [], [[Rep 2 2 h16_colon, ls32,
        Cat (Ch 32 32) port], [Ch 58 58, Cat h16_colon ls32, Cat (Ch 32 32) port], [Ch 58 58,
        ls32, Cat (Ch 32 32) port], [h16, Cat dcolon ls32, Cat (Ch 32 32) port], [Ch 58 58, h16,
        Cat (Ch 32 32) port], [Rep 0 1 h16_colon, h16, Cat dcolon h16, Cat (Ch 32 32) port], [Ch
        58 58, Cat (Ch 32 32) port], [Rep 0 2 h16_colon, h16, dcolon, Cat (Ch 32 32) port]], [[Rep
        2 2 h16_colon, ls32, Cat (Ch 32 32) (Cat port ha_end)], [Ch 58 58, Cat h16_colon ls32, Cat
        (Ch 32 32) (Cat port ha_end)], [Ch 58 58, ls32, Cat (Ch 32 32) (Cat port ha_end)], [h16,
        Cat dcolon ls32, Cat (Ch 32 32) (Cat port ha_end)], [Ch 58 58, h16, Cat (Ch 32 32) (Cat
        port ha_end)], [Rep 0 1 h16_colon, h16, Cat dcolon h16, Cat (Ch 32 32) (Cat port ha_end)],
        [Ch 58 58, Cat (Ch 32 32) (Cat port ha_end)], [Rep 0 2 h16_colon, h16, dcolon, Cat (Ch 32
        32) (Cat port ha_end)]], [], [[Rep 2 2 h16_colon, ls32, Ch 32 32], [Ch 58 58, Cat
        h16_colon ls32, Ch 32 32], [Ch 58 58, ls32, Ch 32 32], [h16, Cat dcolon ls32, Ch 32 32],
        [Ch 58 58, h16, Ch 32 32], [Rep 0 1 h16_colon, h16, Cat dcolon h16, Ch 32 32], [Ch 58 58,
        Ch 32 32], [Rep 0 2 h16_colon, h16, dcolon, Ch 32 32]]]])
      else
      if s = 86 then ([-128, 48, 58, 59, 65, 71, 97, 103], [[[], [], [[Rep 0 3 HEXDIG, Ch 58 58,
        h16_colon, ls32, Cat (Ch 32 32) port], [Rep 0 3 HEXDIG, Cat dcolon ls32, Cat (Ch 32 32)
        port], [Rep 0 3 HEXDIG, Cat dcolon h16, Cat (Ch 32 32) port], [Rep 0 3 HEXDIG, Ch 58 58,
        h16, Cat dcolon h16, Cat (Ch 32 32) port], [Rep 0 3 HEXDIG, dcolon, Cat (Ch 32 32) port],
        [Rep 0 3 HEXDIG, Ch 58 58, Rep 0 1 h16_colon, h16, dcolon, Cat (Ch 32 32) port]], [[Rep 0
        3 HEXDIG, Ch 58 58, h16_colon, ls32, Cat (Ch 32 32) (Cat port ha_end)], [Rep 0 3 HEXDIG,
        Cat dcolon ls32, Cat (Ch 32 32) (Cat port ha_end)], [Rep 0 3 HEXDIG, Cat dcolon h16, Cat
        (Ch 32 32) (Cat port ha_end)], [Rep 0 3 HEXDIG, Ch 58 58, h16, Cat dcolon h16, Cat (Ch 32
        32) (Cat port ha_end)], [Rep 0 3 HEXDIG, dcolon, Cat (Ch 32 32) (Cat port ha_end)], [Rep 0
        3 HEXDIG, Ch 58 58, Rep 0 1 h16_colon, h16, dcolon, Cat (Ch 32 32) (Cat port ha_end)]],
        [], [[Rep 0 3 HEXDIG, Ch 58 58, h16_colon, ls32, Ch 32 32], [Rep 0 3 HEXDIG, Cat dcolon
        ls32, Ch 32 32], [Rep 0 3 HEXDIG, Cat dcolon h16, Ch 32 32], [Rep 0 3 HEXDIG, Ch 58 58,
        h16, Cat dcolon h16, Ch 32 32], [Rep 0 3 HEXDIG, dcolon, Ch 32 32], [Rep 0 3 HEXDIG, Ch 58
        58, Rep 0 1 h16_colon, h16, dcolon, Ch 32 32]]]])
      else
      if s = 87 then ([-128, 48, 58, 59, 65, 71, 97, 103], [[[], [], [[Rep 0 2 HEXDIG, Ch 58 58,
        h16_colon, ls32, Cat (Ch 32 32) port], [Rep 0 2 HEXDIG, Cat dcolon ls32, Cat (Ch 32 32)
        port], [Rep 0 2 HEXDIG, Cat dcolon h16, Cat (Ch 32 32) port], [Rep 0 2 HEXDIG, Ch 58 58,
        h16, Cat dcolon h16, Cat (Ch 32 32) port], [Rep 0 2 HEXDIG, dcolon, Cat (Ch 32 32) port],
        [Rep 0 2 HEXDIG, Ch 58 58, Rep 0 1 h16_colon, h16, dcolon, Cat (Ch 32 32) port]], [[Rep 0
        2 HEXDIG, Ch 58 58, h16_colon, ls32, Cat (Ch 32 32) (Cat port ha_end)], [Rep 0 2 HEXDIG,
        Cat dcolon ls32, Cat (Ch 32 32) (Cat port ha_end)], [Rep 0 2 HEXDIG, Cat dcolon h16, Cat
        (Ch 32 32) (Cat port ha_end)], [Rep 0 2 HEXDIG, Ch 58 58, h16, Cat dcolon h16, Cat (Ch 32
        32) (Cat port ha_end)], [Rep 0 2 HEXDIG, dcolon, Cat (Ch 32 32) (Cat port ha_end)], [Rep 0
        2 HEXDIG, Ch 58 58, Rep 0 1 h16_colon, h16, dcolon, Cat (Ch 32 32) (Cat port ha_end)]],
        [], [[Rep 0 2 HEXDIG, Ch 58 58, h16_colon, ls32, Ch 32 32], [Rep 0 2 HEXDIG, Cat dcolon
        ls32, Ch 32 32], [Rep 0 2 HEXDIG, Cat dcolon h16, Ch 32 32], [Rep 0 2 HEXDIG, Ch 58 58,
        h16, Cat dcolon h16, Ch 32 32], [Rep 0 2 HEXDIG, dcolon, Ch 32 32], [Rep 0 2 HEXDIG, Ch 58
        58, Rep 0 1 h16_colon, h16, dcolon, Ch 32 32]]]])
      else
      ([-128, 48, 58, 59, 65, 71, 97, 103], [[[], [], [[Rep 0 1 HEXDIG, Ch 58 58, h16_colon, ls32,
        Cat (Ch 32 32) port], [Rep 0 1 HEXDIG, Cat dcolon ls32, Cat (Ch 32 32) port], [Rep 0 1
        HEXDIG, Cat dcolon h16, Cat (Ch 32 32) port], [Rep 0 1 HEXDIG, Ch 58 58, h16, Cat dcolon
        h16, Cat (Ch 32 32) port], [Rep 0 1 HEXDIG, dcolon, Cat (Ch 32 32) port], [Rep 0 1 HEXDIG,
        Ch 58 58, Rep 0 1 h16_colon, h16, dcolon, Cat (Ch 32 32) port]], [[Rep 0 1 HEXDIG, Ch 58
        58, h16_colon, ls32, Cat (Ch 32 32) (Cat port ha_end)], [Rep 0 1 HEXDIG, Cat dcolon ls32,
        Cat (Ch 32 32) (Cat port ha_end)], [Rep 0 1 HEXDIG, Cat dcolon h16, Cat (Ch 32 32) (Cat
        port ha_end)], [Rep 0 1 HEXDIG, Ch 58 58, h16, Cat dcolon h16, Cat (Ch 32 32) (Cat port
        ha_end)], [Rep 0 1 HEXDIG, dcolon, Cat (Ch 32 32) (Cat port ha_end)], [Rep 0 1 HEXDIG, Ch
        58 58, Rep 0 1 h16_colon, h16, dcolon, Cat (Ch 32 32) (Cat port ha_end)]], [], [[Rep 0 1
        HEXDIG, Ch 58 58, h16_colon, ls32, Ch 32 32], [Rep 0 1 HEXDIG, Cat dcolon ls32, Ch 32 32],
        [Rep 0 1 HEXDIG, Cat dcolon h16, Ch 32 32], [Rep 0 1 HEXDIG, Ch 58 58, h16, Cat dcolon
        h16, Ch 32 32], [Rep 0 1 HEXDIG, dcolon, Ch 32 32], [Rep 0 1 HEXDIG, Ch 58 58, Rep 0 1
        h16_colon, h16, dcolon, Ch 32 32]]]]))"

definition ha_expects_12 :: certificate where
  "ha_expects_12 s =
     (if s = 89 then ([-128, 58, 59], [[[], [], [[Ch 58 58, h16_colon, ls32, Cat (Ch 32 32) port],
        [Cat dcolon ls32, Cat (Ch 32 32) port], [Cat dcolon h16, Cat (Ch 32 32) port], [Ch 58 58,
        h16, Cat dcolon h16, Cat (Ch 32 32) port], [dcolon, Cat (Ch 32 32) port], [Ch 58 58, Rep 0
        1 h16_colon, h16, dcolon, Cat (Ch 32 32) port]], [[Ch 58 58, h16_colon, ls32, Cat (Ch 32
        32) (Cat port ha_end)], [Cat dcolon ls32, Cat (Ch 32 32) (Cat port ha_end)], [Cat dcolon
        h16, Cat (Ch 32 32) (Cat port ha_end)], [Ch 58 58, h16, Cat dcolon h16, Cat (Ch 32 32)
        (Cat port ha_end)], [dcolon, Cat (Ch 32 32) (Cat port ha_end)], [Ch 58 58, Rep 0 1
        h16_colon, h16, dcolon, Cat (Ch 32 32) (Cat port ha_end)]], [], [[Ch 58 58, h16_colon,
        ls32, Ch 32 32], [Cat dcolon ls32, Ch 32 32], [Cat dcolon h16, Ch 32 32], [Ch 58 58, h16,
        Cat dcolon h16, Ch 32 32], [dcolon, Ch 32 32], [Ch 58 58, Rep 0 1 h16_colon, h16, dcolon,
        Ch 32 32]]]])
      else
      if s = 90 then ([-128, 48, 58, 59, 65, 71, 97, 103], [[[], [], [[h16_colon, ls32, Cat (Ch 32
        32) port], [Ch 58 58, ls32, Cat (Ch 32 32) port], [Ch 58 58, h16, Cat (Ch 32 32) port],
        [h16, Cat dcolon h16, Cat (Ch 32 32) port], [Ch 58 58, Cat (Ch 32 32) port], [Rep 0 1
        h16_colon, h16, dcolon, Cat (Ch 32 32) port]], [[h16_colon, ls32, Cat (Ch 32 32) (Cat port
        ha_end)], [Ch 58 58, ls32, Cat (Ch 32 32) (Cat port ha_end)], [Ch 58 58, h16, Cat (Ch 32
        32) (Cat port ha_end)], [h16, Cat dcolon h16, Cat (Ch 32 32) (Cat port ha_end)], [Ch 58
        58, Cat (Ch 32 32) (Cat port ha_end)], [Rep 0 1 h16_colon, h16, dcolon, Cat (Ch 32 32)
        (Cat port ha_end)]], [], [[h16_colon, ls32, Ch 32 32], [Ch 58 58, ls32, Ch 32 32], [Ch 58
        58, h16, Ch 32 32], [h16, Cat dcolon h16, Ch 32 32], [Ch 58 58, Ch 32 32], [Rep 0 1
        h16_colon, h16, dcolon, Ch 32 32]]]])
      else
      if s = 91 then ([-128, 48, 58, 59, 65, 71, 97, 103], [[[], [], [[Rep 0 3 HEXDIG, Ch 58 58,
        ls32, Cat (Ch 32 32) port], [Rep 0 3 HEXDIG, Cat dcolon h16, Cat (Ch 32 32) port], [Rep 0
        3 HEXDIG, dcolon, Cat (Ch 32 32) port], [Rep 0 3 HEXDIG, Ch 58 58, h16, dcolon, Cat (Ch 32
        32) port]], [[Rep 0 3 HEXDIG, Ch 58 58, ls32, Cat (Ch 32 32) (Cat port ha_end)], [Rep 0 3
        HEXDIG, Cat dcolon h16, Cat (Ch 32 32) (Cat port ha_end)], [Rep 0 3 HEXDIG, dcolon, Cat
        (Ch 32 32) (Cat port ha_end)], [Rep 0 3 HEXDIG, Ch 58 58, h16, dcolon, Cat (Ch 32 32) (Cat
        port ha_end)]], [], [[Rep 0 3 HEXDIG, Ch 58 58, ls32, Ch 32 32], [Rep 0 3 HEXDIG, Cat
        dcolon h16, Ch 32 32], [Rep 0 3 HEXDIG, dcolon, Ch 32 32], [Rep 0 3 HEXDIG, Ch 58 58, h16,
        dcolon, Ch 32 32]]]])
      else
      if s = 92 then ([-128, 48, 58, 59, 65, 71, 97, 103], [[[], [], [[Rep 0 2 HEXDIG, Ch 58 58,
        ls32, Cat (Ch 32 32) port], [Rep 0 2 HEXDIG, Cat dcolon h16, Cat (Ch 32 32) port], [Rep 0
        2 HEXDIG, dcolon, Cat (Ch 32 32) port], [Rep 0 2 HEXDIG, Ch 58 58, h16, dcolon, Cat (Ch 32
        32) port]], [[Rep 0 2 HEXDIG, Ch 58 58, ls32, Cat (Ch 32 32) (Cat port ha_end)], [Rep 0 2
        HEXDIG, Cat dcolon h16, Cat (Ch 32 32) (Cat port ha_end)], [Rep 0 2 HEXDIG, dcolon, Cat
        (Ch 32 32) (Cat port ha_end)], [Rep 0 2 HEXDIG, Ch 58 58, h16, dcolon, Cat (Ch 32 32) (Cat
        port ha_end)]], [], [[Rep 0 2 HEXDIG, Ch 58 58, ls32, Ch 32 32], [Rep 0 2 HEXDIG, Cat
        dcolon h16, Ch 32 32], [Rep 0 2 HEXDIG, dcolon, Ch 32 32], [Rep 0 2 HEXDIG, Ch 58 58, h16,
        dcolon, Ch 32 32]]]])
      else
      if s = 93 then ([-128, 48, 58, 59, 65, 71, 97, 103], [[[], [], [[Rep 0 1 HEXDIG, Ch 58 58,
        ls32, Cat (Ch 32 32) port], [Rep 0 1 HEXDIG, Cat dcolon h16, Cat (Ch 32 32) port], [Rep 0
        1 HEXDIG, dcolon, Cat (Ch 32 32) port], [Rep 0 1 HEXDIG, Ch 58 58, h16, dcolon, Cat (Ch 32
        32) port]], [[Rep 0 1 HEXDIG, Ch 58 58, ls32, Cat (Ch 32 32) (Cat port ha_end)], [Rep 0 1
        HEXDIG, Cat dcolon h16, Cat (Ch 32 32) (Cat port ha_end)], [Rep 0 1 HEXDIG, dcolon, Cat
        (Ch 32 32) (Cat port ha_end)], [Rep 0 1 HEXDIG, Ch 58 58, h16, dcolon, Cat (Ch 32 32) (Cat
        port ha_end)]], [], [[Rep 0 1 HEXDIG, Ch 58 58, ls32, Ch 32 32], [Rep 0 1 HEXDIG, Cat
        dcolon h16, Ch 32 32], [Rep 0 1 HEXDIG, dcolon, Ch 32 32], [Rep 0 1 HEXDIG, Ch 58 58, h16,
        dcolon, Ch 32 32]]]])
      else
      if s = 94 then ([-128, 58, 59], [[[], [], [[Ch 58 58, ls32, Cat (Ch 32 32) port], [Cat
        dcolon h16, Cat (Ch 32 32) port], [dcolon, Cat (Ch 32 32) port], [Ch 58 58, h16, dcolon,
        Cat (Ch 32 32) port]], [[Ch 58 58, ls32, Cat (Ch 32 32) (Cat port ha_end)], [Cat dcolon
        h16, Cat (Ch 32 32) (Cat port ha_end)], [dcolon, Cat (Ch 32 32) (Cat port ha_end)], [Ch 58
        58, h16, dcolon, Cat (Ch 32 32) (Cat port ha_end)]], [], [[Ch 58 58, ls32, Ch 32 32], [Cat
        dcolon h16, Ch 32 32], [dcolon, Ch 32 32], [Ch 58 58, h16, dcolon, Ch 32 32]]]])
      else
      if s = 95 then ([-128, 48, 49, 50, 51, 58, 59, 65, 71, 97, 103], [[[], [], [[ls32, Cat (Ch
        32 32) port], [Ch 58 58, h16, Cat (Ch 32 32) port], [Ch 58 58, Cat (Ch 32 32) port], [h16,
        dcolon, Cat (Ch 32 32) port]], [[ls32, Cat (Ch 32 32) (Cat port ha_end)], [Ch 58 58, h16,
        Cat (Ch 32 32) (Cat port ha_end)], [Ch 58 58, Cat (Ch 32 32) (Cat port ha_end)], [h16,
        dcolon, Cat (Ch 32 32) (Cat port ha_end)]], [], [[ls32, Ch 32 32], [Ch 58 58, h16, Ch 32
        32], [Ch 58 58, Ch 32 32], [h16, dcolon, Ch 32 32]]]])
      else
      ([-128, 46, 47, 48, 58, 59, 65, 71, 97, 103], [[[], [], [[Rep 0 3 HEXDIG, Cat (Ch 58 58)
        h16, Cat (Ch 32 32) port], [Cat (Ch 46 46) (Cat dec_octet (Cat (Ch 46 46) (Cat dec_octet
        (Cat (Ch 46 46) dec_octet)))), Cat (Ch 32 32) port], [Rep 0 3 HEXDIG, dcolon, Cat (Ch 32
        32) port]], [[Rep 0 3 HEXDIG, Cat (Ch 58 58) h16, Cat (Ch 32 32) (Cat port ha_end)], [Cat
        (Ch 46 46) (Cat dec_octet (Cat (Ch 46 46) (Cat dec_octet (Cat (Ch 46 46) dec_octet)))),
        Cat (Ch 32 32) (Cat port ha_end)], [Rep 0 3 HEXDIG, dcolon, Cat (Ch 32 32) (Cat port
        ha_end)]], [], [[Rep 0 3 HEXDIG, Cat (Ch 58 58) h16, Ch 32 32], [Cat (Ch 46 46) (Cat
        dec_octet (Cat (Ch 46 46) (Cat dec_octet (Cat (Ch 46 46) dec_octet)))), Ch 32 32], [Rep 0
        3 HEXDIG, dcolon, Ch 32 32]]]]))"

definition ha_expects_13 :: certificate where
  "ha_expects_13 s =
     (if s = 97 then ([-128, 48, 58, 59, 65, 71, 97, 103], [[[], [], [[Rep 0 2 HEXDIG, Cat (Ch 58
        58) h16, Cat (Ch 32 32) port], [Rep 0 2 HEXDIG, dcolon, Cat (Ch 32 32) port]], [[Rep 0 2
        HEXDIG, Cat (Ch 58 58) h16, Cat (Ch 32 32) (Cat port ha_end)], [Rep 0 2 HEXDIG, dcolon,
        Cat (Ch 32 32) (Cat port ha_end)]], [], [[Rep 0 2 HEXDIG, Cat (Ch 58 58) h16, Ch 32 32],
        [Rep 0 2 HEXDIG, dcolon, Ch 32 32]]]])
      else
      if s = 98 then ([-128, 48, 58, 59, 65, 71, 97, 103], [[[], [], [[Rep 0 1 HEXDIG, Cat (Ch 58
        58) h16, Cat (Ch 32 32) port], [Rep 0 1 HEXDIG, dcolon, Cat (Ch 32 32) port]], [[Rep 0 1
        HEXDIG, Cat (Ch 58 58) h16, Cat (Ch 32 32) (Cat port ha_end)], [Rep 0 1 HEXDIG, dcolon,
        Cat (Ch 32 32) (Cat port ha_end)]], [], [[Rep 0 1 HEXDIG, Cat (Ch 58 58) h16, Ch 32 32],
        [Rep 0 1 HEXDIG, dcolon, Ch 32 32]]]])
      else
      if s = 99 then ([-128, 58, 59], [[[], [], [[Cat (Ch 58 58) h16, Cat (Ch 32 32) port],
        [dcolon, Cat (Ch 32 32) port]], [[Cat (Ch 58 58) h16, Cat (Ch 32 32) (Cat port ha_end)],
        [dcolon, Cat (Ch 32 32) (Cat port ha_end)]], [], [[Cat (Ch 58 58) h16, Ch 32 32], [dcolon,
        Ch 32 32]]]])
      else
      if s = 100 then ([-128, 48, 58, 59, 65, 71, 97, 103], [[[], [], [[h16, Cat (Ch 32 32) port],
        [Ch 58 58, Cat (Ch 32 32) port]], [[h16, Cat (Ch 32 32) (Cat port ha_end)], [Ch 58 58, Cat
        (Ch 32 32) (Cat port ha_end)]], [], [[h16, Ch 32 32], [Ch 58 58, Ch 32 32]]]])
      else
      if s = 101 then ([-128, 32, 33, 48, 58, 65, 71, 97, 103], [[[], [], [[Rep 0 3 HEXDIG, Cat
        (Ch 32 32) port]], [[Rep 0 3 HEXDIG, Cat (Ch 32 32) (Cat port ha_end)]], [], [[Rep 0 3
        HEXDIG, Ch 32 32]]]])
      else
      if s = 102 then ([-128, 32, 33, 48, 58, 65, 71, 97, 103], [[[], [], [[Rep 0 2 HEXDIG, Cat
        (Ch 32 32) port]], [[Rep 0 2 HEXDIG, Cat (Ch 32 32) (Cat port ha_end)]], [], [[Rep 0 2
        HEXDIG, Ch 32 32]]]])
      else
      if s = 103 then ([-128, 32, 33, 48, 58, 65, 71, 97, 103], [[[], [], [[Rep 0 1 HEXDIG, Cat
        (Ch 32 32) port]], [[Rep 0 1 HEXDIG, Cat (Ch 32 32) (Cat port ha_end)]], [], [[Rep 0 1
        HEXDIG, Ch 32 32]]]])
      else
      ([-128, 46, 47, 48, 58, 59, 65, 71, 97, 103], [[[], [], [[Rep 0 3 HEXDIG, Cat (Ch 58 58)
        h16, Cat (Ch 32 32) port], [Cat (Ch 46 46) (Cat dec_octet (Cat (Ch 46 46) (Cat dec_octet
        (Cat (Ch 46 46) dec_octet)))), Cat (Ch 32 32) port], [DIGIT, Cat (Ch 46 46) (Cat dec_octet
        (Cat (Ch 46 46) (Cat dec_octet (Cat (Ch 46 46) dec_octet)))), Cat (Ch 32 32) port], [Rep 2
        2 DIGIT, Cat (Ch 46 46) (Cat dec_octet (Cat (Ch 46 46) (Cat dec_octet (Cat (Ch 46 46)
        dec_octet)))), Cat (Ch 32 32) port], [Rep 0 3 HEXDIG, dcolon, Cat (Ch 32 32) port]], [[Rep
        0 3 HEXDIG, Cat (Ch 58 58) h16, Cat (Ch 32 32) (Cat port ha_end)], [Cat (Ch 46 46) (Cat
        dec_octet (Cat (Ch 46 46) (Cat dec_octet (Cat (Ch 46 46) dec_octet)))), Cat (Ch 32 32)
        (Cat port ha_end)], [DIGIT, Cat (Ch 46 46) (Cat dec_octet (Cat (Ch 46 46) (Cat dec_octet
        (Cat (Ch 46 46) dec_octet)))), Cat (Ch 32 32) (Cat port ha_end)], [Rep 2 2 DIGIT, Cat (Ch
        46 46) (Cat dec_octet (Cat (Ch 46 46) (Cat dec_octet (Cat (Ch 46 46) dec_octet)))), Cat
        (Ch 32 32) (Cat port ha_end)], [Rep 0 3 HEXDIG, dcolon, Cat (Ch 32 32) (Cat port
        ha_end)]], [], [[Rep 0 3 HEXDIG, Cat (Ch 58 58) h16, Ch 32 32], [Cat (Ch 46 46) (Cat
        dec_octet (Cat (Ch 46 46) (Cat dec_octet (Cat (Ch 46 46) dec_octet)))), Ch 32 32], [DIGIT,
        Cat (Ch 46 46) (Cat dec_octet (Cat (Ch 46 46) (Cat dec_octet (Cat (Ch 46 46)
        dec_octet)))), Ch 32 32], [Rep 2 2 DIGIT, Cat (Ch 46 46) (Cat dec_octet (Cat (Ch 46 46)
        (Cat dec_octet (Cat (Ch 46 46) dec_octet)))), Ch 32 32], [Rep 0 3 HEXDIG, dcolon, Ch 32
        32]]]]))"

definition ha_expects_14 :: certificate where
  "ha_expects_14 s =
     (if s = 105 then ([-128, 46, 47, 48, 58, 59, 65, 71, 97, 103], [[[], [], [[Rep 0 2 HEXDIG,
        Cat (Ch 58 58) h16, Cat (Ch 32 32) port], [Cat (Ch 46 46) (Cat dec_octet (Cat (Ch 46 46)
        (Cat dec_octet (Cat (Ch 46 46) dec_octet)))), Cat (Ch 32 32) port], [DIGIT, Cat (Ch 46 46)
        (Cat dec_octet (Cat (Ch 46 46) (Cat dec_octet (Cat (Ch 46 46) dec_octet)))), Cat (Ch 32
        32) port], [Rep 0 2 HEXDIG, dcolon, Cat (Ch 32 32) port]], [[Rep 0 2 HEXDIG, Cat (Ch 58
        58) h16, Cat (Ch 32 32) (Cat port ha_end)], [Cat (Ch 46 46) (Cat dec_octet (Cat (Ch 46 46)
        (Cat dec_octet (Cat (Ch 46 46) dec_octet)))), Cat (Ch 32 32) (Cat port ha_end)], [DIGIT,
        Cat (Ch 46 46) (Cat dec_octet (Cat (Ch 46 46) (Cat dec_octet (Cat (Ch 46 46)
        dec_octet)))), Cat (Ch 32 32) (Cat port ha_end)], [Rep 0 2 HEXDIG, dcolon, Cat (Ch 32 32)
        (Cat port ha_end)]], [], [[Rep 0 2 HEXDIG, Cat (Ch 58 58) h16, Ch 32 32], [Cat (Ch 46 46)
        (Cat dec_octet (Cat (Ch 46 46) (Cat dec_octet (Cat (Ch 46 46) dec_octet)))), Ch 32 32],
        [DIGIT, Cat (Ch 46 46) (Cat dec_octet (Cat (Ch 46 46) (Cat dec_octet (Cat (Ch 46 46)
        dec_octet)))), Ch 32 32], [Rep 0 2 HEXDIG, dcolon, Ch 32 32]]]])
      else
      if s = 106 then ([-128, 46, 47, 48, 58, 59, 65, 71, 97, 103], [[[], [], [[Rep 0 1 HEXDIG,
        Cat (Ch 58 58) h16, Cat (Ch 32 32) port], [Cat (Ch 46 46) (Cat dec_octet (Cat (Ch 46 46)
        (Cat dec_octet (Cat (Ch 46 46) dec_octet)))), Cat (Ch 32 32) port], [Rep 0 1 HEXDIG,
        dcolon, Cat (Ch 32 32) port]], [[Rep 0 1 HEXDIG, Cat (Ch 58 58) h16, Cat (Ch 32 32) (Cat
        port ha_end)], [Cat (Ch 46 46) (Cat dec_octet (Cat (Ch 46 46) (Cat dec_octet (Cat (Ch 46
        46) dec_octet)))), Cat (Ch 32 32) (Cat port ha_end)], [Rep 0 1 HEXDIG, dcolon, Cat (Ch 32
        32) (Cat port ha_end)]], [], [[Rep 0 1 HEXDIG, Cat (Ch 58 58) h16, Ch 32 32], [Cat (Ch 46
        46) (Cat dec_octet (Cat (Ch 46 46) (Cat dec_octet (Cat (Ch 46 46) dec_octet)))), Ch 32
        32], [Rep 0 1 HEXDIG, dcolon, Ch 32 32]]]])
      else
      if s = 107 then ([-128, 46, 47, 48, 53, 54, 58, 59, 65, 71, 97, 103], [[[], [], [[Rep 0 3
        HEXDIG, Cat (Ch 58 58) h16, Cat (Ch 32 32) port], [Cat (Ch 46 46) (Cat dec_octet (Cat (Ch
        46 46) (Cat dec_octet (Cat (Ch 46 46) dec_octet)))), Cat (Ch 32 32) port], [DIGIT, Cat (Ch
        46 46) (Cat dec_octet (Cat (Ch 46 46) (Cat dec_octet (Cat (Ch 46 46) dec_octet)))), Cat
        (Ch 32 32) port], [Cat (Ch 48 52) DIGIT, Cat (Ch 46 46) (Cat dec_octet (Cat (Ch 46 46)
        (Cat dec_octet (Cat (Ch 46 46) dec_octet)))), Cat (Ch 32 32) port], [Cat (Ch 53 53) (Ch 48
        53), Cat (Ch 46 46) (Cat dec_octet (Cat (Ch 46 46) (Cat dec_octet (Cat (Ch 46 46)
        dec_octet)))), Cat (Ch 32 32) port], [Rep 0 3 HEXDIG, dcolon, Cat (Ch 32 32) port]], [[Rep
        0 3 HEXDIG, Cat (Ch 58 58) h16, Cat (Ch 32 32) (Cat port ha_end)], [Cat (Ch 46 46) (Cat
        dec_octet (Cat (Ch 46 46) (Cat dec_octet (Cat (Ch 46 46) dec_octet)))), Cat (Ch 32 32)
        (Cat port ha_end)], [DIGIT, Cat (Ch 46 46) (Cat dec_octet (Cat (Ch 46 46) (Cat dec_octet
        (Cat (Ch 46 46) dec_octet)))), Cat (Ch 32 32) (Cat port ha_end)], [Cat (Ch 48 52) DIGIT,
        Cat (Ch 46 46) (Cat dec_octet (Cat (Ch 46 46) (Cat dec_octet (Cat (Ch 46 46)
        dec_octet)))), Cat (Ch 32 32) (Cat port ha_end)], [Cat (Ch 53 53) (Ch 48 53), Cat (Ch 46
        46) (Cat dec_octet (Cat (Ch 46 46) (Cat dec_octet (Cat (Ch 46 46) dec_octet)))), Cat (Ch
        32 32) (Cat port ha_end)], [Rep 0 3 HEXDIG, dcolon, Cat (Ch 32 32) (Cat port ha_end)]],
        [], [[Rep 0 3 HEXDIG, Cat (Ch 58 58) h16, Ch 32 32], [Cat (Ch 46 46) (Cat dec_octet (Cat
        (Ch 46 46) (Cat dec_octet (Cat (Ch 46 46) dec_octet)))), Ch 32 32], [DIGIT, Cat (Ch 46 46)
        (Cat dec_octet (Cat (Ch 46 46) (Cat dec_octet (Cat (Ch 46 46) dec_octet)))), Ch 32 32],
        [Cat (Ch 48 52) DIGIT, Cat (Ch 46 46) (Cat dec_octet (Cat (Ch 46 46) (Cat dec_octet (Cat
        (Ch 46 46) dec_octet)))), Ch 32 32], [Cat (Ch 53 53) (Ch 48 53), Cat (Ch 46 46) (Cat
        dec_octet (Cat (Ch 46 46) (Cat dec_octet (Cat (Ch 46 46) dec_octet)))), Ch 32 32], [Rep 0
        3 HEXDIG, dcolon, Ch 32 32]]]])
      else
      if s = 108 then ([-128, 46, 47, 48, 54, 58, 59, 65, 71, 97, 103], [[[], [], [[Rep 0 2
        HEXDIG, Cat (Ch 58 58) h16, Cat (Ch 32 32) port], [Cat (Ch 46 46) (Cat dec_octet (Cat (Ch
        46 46) (Cat dec_octet (Cat (Ch 46 46) dec_octet)))), Cat (Ch 32 32) port], [Ch 48 53, Cat
        (Ch 46 46) (Cat dec_octet (Cat (Ch 46 46) (Cat dec_octet (Cat (Ch 46 46) dec_octet)))),
        Cat (Ch 32 32) port], [Rep 0 2 HEXDIG, dcolon, Cat (Ch 32 32) port]], [[Rep 0 2 HEXDIG,
        Cat (Ch 58 58) h16, Cat (Ch 32 32) (Cat port ha_end)], [Cat (Ch 46 46) (Cat dec_octet (Cat
        (Ch 46 46) (Cat dec_octet (Cat (Ch 46 46) dec_octet)))), Cat (Ch 32 32) (Cat port
        ha_end)], [Ch 48 53, Cat (Ch 46 46) (Cat dec_octet (Cat (Ch 46 46) (Cat dec_octet (Cat (Ch
        46 46) dec_octet)))), Cat (Ch 32 32) (Cat port ha_end)], [Rep 0 2 HEXDIG, dcolon, Cat (Ch
        32 32) (Cat port ha_end)]], [], [[Rep 0 2 HEXDIG, Cat (Ch 58 58) h16, Ch 32 32], [Cat (Ch
        46 46) (Cat dec_octet (Cat (Ch 46 46) (Cat dec_octet (Cat (Ch 46 46) dec_octet)))), Ch 32
        32], [Ch 48 53, Cat (Ch 46 46) (Cat dec_octet (Cat (Ch 46 46) (Cat dec_octet (Cat (Ch 46
        46) dec_octet)))), Ch 32 32], [Rep 0 2 HEXDIG, dcolon, Ch 32 32]]]])
      else
      if s = 109 then ([-128, 46, 47, 48, 58, 59, 65, 71, 97, 103], [[[], [], [[Rep 0 2 HEXDIG,
        Cat (Ch 58 58) h16, Cat (Ch 32 32) port], [Cat (Ch 46 46) (Cat dec_octet (Cat (Ch 46 46)
        (Cat dec_octet (Cat (Ch 46 46) dec_octet)))), Cat (Ch 32 32) port], [Rep 0 2 HEXDIG,
        dcolon, Cat (Ch 32 32) port]], [[Rep 0 2 HEXDIG, Cat (Ch 58 58) h16, Cat (Ch 32 32) (Cat
        port ha_end)], [Cat (Ch 46 46) (Cat dec_octet (Cat (Ch 46 46) (Cat dec_octet (Cat (Ch 46
        46) dec_octet)))), Cat (Ch 32 32) (Cat port ha_end)], [Rep 0 2 HEXDIG, dcolon, Cat (Ch 32
        32) (Cat port ha_end)]], [], [[Rep 0 2 HEXDIG, Cat (Ch 58 58) h16, Ch 32 32], [Cat (Ch 46
        46) (Cat dec_octet (Cat (Ch 46 46) (Cat dec_octet (Cat (Ch 46 46) dec_octet)))), Ch 32
        32], [Rep 0 2 HEXDIG, dcolon, Ch 32 32]]]])
      else
      if s = 110 then ([-128, 46, 47, 48, 58, 59, 65, 71, 97, 103], [[[], [], [[Rep 0 3 HEXDIG,
        Cat (Ch 58 58) h16, Cat (Ch 32 32) port], [Cat (Ch 46 46) (Cat dec_octet (Cat (Ch 46 46)
        (Cat dec_octet (Cat (Ch 46 46) dec_octet)))), Cat (Ch 32 32) port], [DIGIT, Cat (Ch 46 46)
        (Cat dec_octet (Cat (Ch 46 46) (Cat dec_octet (Cat (Ch 46 46) dec_octet)))), Cat (Ch 32
        32) port], [Rep 0 3 HEXDIG, dcolon, Cat (Ch 32 32) port]], [[Rep 0 3 HEXDIG, Cat (Ch 58
        58) h16, Cat (Ch 32 32) (Cat port ha_end)], [Cat (Ch 46 46) (Cat dec_octet (Cat (Ch 46 46)
        (Cat dec_octet (Cat (Ch 46 46) dec_octet)))), Cat (Ch 32 32) (Cat port ha_end)], [DIGIT,
        Cat (Ch 46 46) (Cat dec_octet (Cat (Ch 46 46) (Cat dec_octet (Cat (Ch 46 46)
        dec_octet)))), Cat (Ch 32 32) (Cat port ha_end)], [Rep 0 3 HEXDIG, dcolon, Cat (Ch 32 32)
        (Cat port ha_end)]], [], [[Rep 0 3 HEXDIG, Cat (Ch 58 58) h16, Ch 32 32], [Cat (Ch 46 46)
        (Cat dec_octet (Cat (Ch 46 46) (Cat dec_octet (Cat (Ch 46 46) dec_octet)))), Ch 32 32],
        [DIGIT, Cat (Ch 46 46) (Cat dec_octet (Cat (Ch 46 46) (Cat dec_octet (Cat (Ch 46 46)
        dec_octet)))), Ch 32 32], [Rep 0 3 HEXDIG, dcolon, Ch 32 32]]]])
      else
      if s = 111 then ([-128, 32, 33, 48, 58, 65, 71, 97, 103], [[[], [], [[h16, Cat (Ch 32 32)
        port], [Cat (Ch 32 32) port]], [[h16, Cat (Ch 32 32) (Cat port ha_end)], [Cat (Ch 32 32)
        (Cat port ha_end)]], [], [[h16, Ch 32 32], [Ch 32 32]]]])
      else
      ([-128, 48, 58, 59, 65, 71, 97, 103], [[[], [], [[Rep 0 3 HEXDIG, Cat (Ch 58 58) h16, Cat
        (Ch 32 32) port], [Rep 0 3 HEXDIG, dcolon, Cat (Ch 32 32) port]], [[Rep 0 3 HEXDIG, Cat
        (Ch 58 58) h16, Cat (Ch 32 32) (Cat port ha_end)], [Rep 0 3 HEXDIG, dcolon, Cat (Ch 32 32)
        (Cat port ha_end)]], [], [[Rep 0 3 HEXDIG, Cat (Ch 58 58) h16, Ch 32 32], [Rep 0 3 HEXDIG,
        dcolon, Ch 32 32]]]]))"

definition ha_expects_15 :: certificate where
  "ha_expects_15 s =
     (if s = 113 then ([-128, 32, 33, 48, 49, 50, 51, 58, 65, 71, 97, 103], [[[], [], [[ls32, Cat
        (Ch 32 32) port], [h16, Cat (Ch 32 32) port], [Cat (Ch 32 32) port]], [[ls32, Cat (Ch 32
        32) (Cat port ha_end)], [h16, Cat (Ch 32 32) (Cat port ha_end)], [Cat (Ch 32 32) (Cat port
        ha_end)]], [], [[ls32, Ch 32 32], [h16, Ch 32 32], [Ch 32 32]]]])
      else
      if s = 114 then ([-128, 32, 33, 46, 47, 48, 58, 59, 65, 71, 97, 103], [[[], [], [[Rep 0 3
        HEXDIG, Cat (Ch 58 58) h16, Cat (Ch 32 32) port], [Cat (Ch 46 46) (Cat dec_octet (Cat (Ch
        46 46) (Cat dec_octet (Cat (Ch 46 46) dec_octet)))), Cat (Ch 32 32) port], [Rep 0 3
        HEXDIG, Cat (Ch 32 32) port]], [[Rep 0 3 HEXDIG, Cat (Ch 58 58) h16, Cat (Ch 32 32) (Cat
        port ha_end)], [Cat (Ch 46 46) (Cat dec_octet (Cat (Ch 46 46) (Cat dec_octet (Cat (Ch 46
        46) dec_octet)))), Cat (Ch 32 32) (Cat port ha_end)], [Rep 0 3 HEXDIG, Cat (Ch 32 32) (Cat
        port ha_end)]], [], [[Rep 0 3 HEXDIG, Cat (Ch 58 58) h16, Ch 32 32], [Cat (Ch 46 46) (Cat
        dec_octet (Cat (Ch 46 46) (Cat dec_octet (Cat (Ch 46 46) dec_octet)))), Ch 32 32], [Rep 0
        3 HEXDIG, Ch 32 32]]]])
      else
      if s = 115 then ([-128, 32, 33, 48, 58, 59, 65, 71, 97, 103], [[[], [], [[Rep 0 2 HEXDIG,
        Cat (Ch 58 58) h16, Cat (Ch 32 32) port], [Rep 0 2 HEXDIG, Cat (Ch 32 32) port]], [[Rep 0
        2 HEXDIG, Cat (Ch 58 58) h16, Cat (Ch 32 32) (Cat port ha_end)], [Rep 0 2 HEXDIG, Cat (Ch
        32 32) (Cat port ha_end)]], [], [[Rep 0 2 HEXDIG, Cat (Ch 58 58) h16, Ch 32 32], [Rep 0 2
        HEXDIG, Ch 32 32]]]])
      else
      if s = 116 then ([-128, 32, 33, 48, 58, 59, 65, 71, 97, 103], [[[], [], [[Rep 0 1 HEXDIG,
        Cat (Ch 58 58) h16, Cat (Ch 32 32) port], [Rep 0 1 HEXDIG, Cat (Ch 32 32) port]], [[Rep 0
        1 HEXDIG, Cat (Ch 58 58) h16, Cat (Ch 32 32) (Cat port ha_end)], [Rep 0 1 HEXDIG, Cat (Ch
        32 32) (Cat port ha_end)]], [], [[Rep 0 1 HEXDIG, Cat (Ch 58 58) h16, Ch 32 32], [Rep 0 1
        HEXDIG, Ch 32 32]]]])
      else
      if s = 117 then ([-128, 32, 33, 58, 59], [[[], [], [[Cat (Ch 58 58) h16, Cat (Ch 32 32)
        port], [Cat (Ch 32 32) port]], [[Cat (Ch 58 58) h16, Cat (Ch 32 32) (Cat port ha_end)],
        [Cat (Ch 32 32) (Cat port ha_end)]], [], [[Cat (Ch 58 58) h16, Ch 32 32], [Ch 32 32]]]])
      else
      if s = 118 then ([-128, 48, 58, 65, 71, 97, 103], [[[], [], [[h16, Cat (Ch 32 32) port]],
        [[h16, Cat (Ch 32 32) (Cat port ha_end)]], [], [[h16, Ch 32 32]]]])
      else
      if s = 119 then ([-128, 32, 33, 46, 47, 48, 58, 59, 65, 71, 97, 103], [[[], [], [[Rep 0 3
        HEXDIG, Cat (Ch 58 58) h16, Cat (Ch 32 32) port], [Cat (Ch 46 46) (Cat dec_octet (Cat (Ch
        46 46) (Cat dec_octet (Cat (Ch 46 46) dec_octet)))), Cat (Ch 32 32) port], [DIGIT, Cat (Ch
        46 46) (Cat dec_octet (Cat (Ch 46 46) (Cat dec_octet (Cat (Ch 46 46) dec_octet)))), Cat
        (Ch 32 32) port], [Rep 2 2 DIGIT, Cat (Ch 46 46) (Cat dec_octet (Cat (Ch 46 46) (Cat
        dec_octet (Cat (Ch 46 46) dec_octet)))), Cat (Ch 32 32) port], [Rep 0 3 HEXDIG, Cat (Ch 32
        32) port]], [[Rep 0 3 HEXDIG, Cat (Ch 58 58) h16, Cat (Ch 32 32) (Cat port ha_end)], [Cat
        (Ch 46 46) (Cat dec_octet (Cat (Ch 46 46) (Cat dec_octet (Cat (Ch 46 46) dec_octet)))),
        Cat (Ch 32 32) (Cat port ha_end)], [DIGIT, Cat (Ch 46 46) (Cat dec_octet (Cat (Ch 46 46)
        (Cat dec_octet (Cat (Ch 46 46) dec_octet)))), Cat (Ch 32 32) (Cat port ha_end)], [Rep 2 2
        DIGIT, Cat (Ch 46 46) (Cat dec_octet (Cat (Ch 46 46) (Cat dec_octet (Cat (Ch 46 46)
        dec_octet)))), Cat (Ch 32 32) (Cat port ha_end)], [Rep 0 3 HEXDIG, Cat (Ch 32 32) (Cat
        port ha_end)]], [], [[Rep 0 3 HEXDIG, Cat (Ch 58 58) h16, Ch 32 32], [Cat (Ch 46 46) (Cat
        dec_octet (Cat (Ch 46 46) (Cat dec_octet (Cat (Ch 46 46) dec_octet)))), Ch 32 32], [DIGIT,
        Cat (Ch 46 46) (Cat dec_octet (Cat (Ch 46 46) (Cat dec_octet (Cat (Ch 46 46)
        dec_octet)))), Ch 32 32], [Rep 2 2 DIGIT, Cat (Ch 46 46) (Cat dec_octet (Cat (Ch 46 46)
        (Cat dec_octet (Cat (Ch 46 46) dec_octet)))), Ch 32 32], [Rep 0 3 HEXDIG, Ch 32 32]]]])
      else
      ([-128, 32, 33, 46, 47, 48, 58, 59, 65, 71, 97, 103], [[[], [], [[Rep 0 2 HEXDIG, Cat (Ch 58
        58) h16, Cat (Ch 32 32) port], [Cat (Ch 46 46) (Cat dec_octet (Cat (Ch 46 46) (Cat
        dec_octet (Cat (Ch 46 46) dec_octet)))), Cat (Ch 32 32) port], [DIGIT, Cat (Ch 46 46) (Cat
        dec_octet (Cat (Ch 46 46) (Cat dec_octet (Cat (Ch 46 46) dec_octet)))), Cat (Ch 32 32)
        port], [Rep 0 2 HEXDIG, Cat (Ch 32 32) port]], [[Rep 0 2 HEXDIG, Cat (Ch 58 58) h16, Cat
        (Ch 32 32) (Cat port ha_end)], [Cat (Ch 46 46) (Cat dec_octet (Cat (Ch 46 46) (Cat
        dec_octet (Cat (Ch 46 46) dec_octet)))), Cat (Ch 32 32) (Cat port ha_end)], [DIGIT, Cat
        (Ch 46 46) (Cat dec_octet (Cat (Ch 46 46) (Cat dec_octet (Cat (Ch 46 46) dec_octet)))),
        Cat (Ch 32 32) (Cat port ha_end)], [Rep 0 2 HEXDIG, Cat (Ch 32 32) (Cat port ha_end)]],
        [], [[Rep 0 2 HEXDIG, Cat (Ch 58 58) h16, Ch 32 32], [Cat (Ch 46 46) (Cat dec_octet (Cat
        (Ch 46 46) (Cat dec_octet (Cat (Ch 46 46) dec_octet)))), Ch 32 32], [DIGIT, Cat (Ch 46 46)
        (Cat dec_octet (Cat (Ch 46 46) (Cat dec_octet (Cat (Ch 46 46) dec_octet)))), Ch 32 32],
        [Rep 0 2 HEXDIG, Ch 32 32]]]]))"

definition ha_expects_16 :: certificate where
  "ha_expects_16 s =
     (if s = 121 then ([-128, 32, 33, 46, 47, 48, 58, 59, 65, 71, 97, 103], [[[], [], [[Rep 0 1
        HEXDIG, Cat (Ch 58 58) h16, Cat (Ch 32 32) port], [Cat (Ch 46 46) (Cat dec_octet (Cat (Ch
        46 46) (Cat dec_octet (Cat (Ch 46 46) dec_octet)))), Cat (Ch 32 32) port], [Rep 0 1
        HEXDIG, Cat (Ch 32 32) port]], [[Rep 0 1 HEXDIG, Cat (Ch 58 58) h16, Cat (Ch 32 32) (Cat
        port ha_end)], [Cat (Ch 46 46) (Cat dec_octet (Cat (Ch 46 46) (Cat dec_octet (Cat (Ch 46
        46) dec_octet)))), Cat (Ch 32 32) (Cat port ha_end)], [Rep 0 1 HEXDIG, Cat (Ch 32 32) (Cat
        port ha_end)]], [], [[Rep 0 1 HEXDIG, Cat (Ch 58 58) h16, Ch 32 32], [Cat (Ch 46 46) (Cat
        dec_octet (Cat (Ch 46 46) (Cat dec_octet (Cat (Ch 46 46) dec_octet)))), Ch 32 32], [Rep 0
        1 HEXDIG, Ch 32 32]]]])
      else
      if s = 122 then ([-128, 32, 33, 46, 47, 48, 53, 54, 58, 59, 65, 71, 97, 103], [[[], [],
        [[Rep 0 3 HEXDIG, Cat (Ch 58 58) h16, Cat (Ch 32 32) port], [Cat (Ch 46 46) (Cat dec_octet
        (Cat (Ch 46 46) (Cat dec_octet (Cat (Ch 46 46) dec_octet)))), Cat (Ch 32 32) port],
        [DIGIT, Cat (Ch 46 46) (Cat dec_octet (Cat (Ch 46 46) (Cat dec_octet (Cat (Ch 46 46)
        dec_octet)))), Cat (Ch 32 32) port], [Cat (Ch 48 52) DIGIT, Cat (Ch 46 46) (Cat dec_octet
        (Cat (Ch 46 46) (Cat dec_octet (Cat (Ch 46 46) dec_octet)))), Cat (Ch 32 32) port], [Cat
        (Ch 53 53) (Ch 48 53), Cat (Ch 46 46) (Cat dec_octet (Cat (Ch 46 46) (Cat dec_octet (Cat
        (Ch 46 46) dec_octet)))), Cat (Ch 32 32) port], [Rep 0 3 HEXDIG, Cat (Ch 32 32) port]],
        [[Rep 0 3 HEXDIG, Cat (Ch 58 58) h16, Cat (Ch 32 32) (Cat port ha_end)], [Cat (Ch 46 46)
        (Cat dec_octet (Cat (Ch 46 46) (Cat dec_octet (Cat (Ch 46 46) dec_octet)))), Cat (Ch 32
        32) (Cat port ha_end)], [DIGIT, Cat (Ch 46 46) (Cat dec_octet (Cat (Ch 46 46) (Cat
        dec_octet (Cat (Ch 46 46) dec_octet)))), Cat (Ch 32 32) (Cat port ha_end)], [Cat (Ch 48
        52) DIGIT, Cat (Ch 46 46) (Cat dec_octet (Cat (Ch 46 46) (Cat dec_octet (Cat (Ch 46 46)
        dec_octet)))), Cat (Ch 32 32) (Cat port ha_end)], [Cat (Ch 53 53) (Ch 48 53), Cat (Ch 46
        46) (Cat dec_octet (Cat (Ch 46 46) (Cat dec_octet (Cat (Ch 46 46) dec_octet)))), Cat (Ch
        32 32) (Cat port ha_end)], [Rep 0 3 HEXDIG, Cat (Ch 32 32) (Cat port ha_end)]], [], [[Rep
        0 3 HEXDIG, Cat (Ch 58 58) h16, Ch 32 32], [Cat (Ch 46 46) (Cat dec_octet (Cat (Ch 46 46)
        (Cat dec_octet (Cat (Ch 46 46) dec_octet)))), Ch 32 32], [DIGIT, Cat (Ch 46 46) (Cat
        dec_octet (Cat (Ch 46 46) (Cat dec_octet (Cat (Ch 46 46) dec_octet)))), Ch 32 32], [Cat
        (Ch 48 52) DIGIT, Cat (Ch 46 46) (Cat dec_octet (Cat (Ch 46 46) (Cat dec_octet (Cat (Ch 46
        46) dec_octet)))), Ch 32 32], [Cat (Ch 53 53) (Ch 48 53), Cat (Ch 46 46) (Cat dec_octet
        (Cat (Ch 46 46) (Cat dec_octet (Cat (Ch 46 46) dec_octet)))), Ch 32 32], [Rep 0 3 HEXDIG,
        Ch 32 32]]]])
      else
      if s = 123 then ([-128, 32, 33, 46, 47, 48, 54, 58, 59, 65, 71, 97, 103], [[[], [], [[Rep 0
        2 HEXDIG, Cat (Ch 58 58) h16, Cat (Ch 32 32) port], [Cat (Ch 46 46) (Cat dec_octet (Cat
        (Ch 46 46) (Cat dec_octet (Cat (Ch 46 46) dec_octet)))), Cat (Ch 32 32) port], [Ch 48 53,
        Cat (Ch 46 46) (Cat dec_octet (Cat (Ch 46 46) (Cat dec_octet (Cat (Ch 46 46)
        dec_octet)))), Cat (Ch 32 32) port], [Rep 0 2 HEXDIG, Cat (Ch 32 32) port]], [[Rep 0 2
        HEXDIG, Cat (Ch 58 58) h16, Cat (Ch 32 32) (Cat port ha_end)], [Cat (Ch 46 46) (Cat
        dec_octet (Cat (Ch 46 46) (Cat dec_octet (Cat (Ch 46 46) dec_octet)))), Cat (Ch 32 32)
        (Cat port ha_end)], [Ch 48 53, Cat (Ch 46 46) (Cat dec_octet (Cat (Ch 46 46) (Cat
        dec_octet (Cat (Ch 46 46) dec_octet)))), Cat (Ch 32 32) (Cat port ha_end)], [Rep 0 2
        HEXDIG, Cat (Ch 32 32) (Cat port ha_end)]], [], [[Rep 0 2 HEXDIG, Cat (Ch 58 58) h16, Ch
        32 32], [Cat (Ch 46 46) (Cat dec_octet (Cat (Ch 46 46) (Cat dec_octet (Cat (Ch 46 46)
        dec_octet)))), Ch 32 32], [Ch 48 53, Cat (Ch 46 46) (Cat dec_octet (Cat (Ch 46 46) (Cat
        dec_octet (Cat (Ch 46 46) dec_octet)))), Ch 32 32], [Rep 0 2 HEXDIG, Ch 32 32]]]])
      else
      if s = 124 then ([-128, 32, 33, 46, 47, 48, 58, 59, 65, 71, 97, 103], [[[], [], [[Rep 0 2
        HEXDIG, Cat (Ch 58 58) h16, Cat (Ch 32 32) port], [Cat (Ch 46 46) (Cat dec_octet (Cat (Ch
        46 46) (Cat dec_octet (Cat (Ch 46 46) dec_octet)))), Cat (Ch 32 32) port], [Rep 0 2
        HEXDIG, Cat (Ch 32 32) port]], [[Rep 0 2 HEXDIG, Cat (Ch 58 58) h16, Cat (Ch 32 32) (Cat
        port ha_end)], [Cat (Ch 46 46) (Cat dec_octet (Cat (Ch 46 46) (Cat dec_octet (Cat (Ch 46
        46) dec_octet)))), Cat (Ch 32 32) (Cat port ha_end)], [Rep 0 2 HEXDIG, Cat (Ch 32 32) (Cat
        port ha_end)]], [], [[Rep 0 2 HEXDIG, Cat (Ch 58 58) h16, Ch 32 32], [Cat (Ch 46 46) (Cat
        dec_octet (Cat (Ch 46 46) (Cat dec_octet (Cat (Ch 46 46) dec_octet)))), Ch 32 32], [Rep 0
        2 HEXDIG, Ch 32 32]]]])
      else
      if s = 125 then ([-128, 32, 33, 46, 47, 48, 58, 59, 65, 71, 97, 103], [[[], [], [[Rep 0 3
        HEXDIG, Cat (Ch 58 58) h16, Cat (Ch 32 32) port], [Cat (Ch 46 46) (Cat dec_octet (Cat (Ch
        46 46) (Cat dec_octet (Cat (Ch 46 46) dec_octet)))), Cat (Ch 32 32) port], [DIGIT, Cat (Ch
        46 46) (Cat dec_octet (Cat (Ch 46 46) (Cat dec_octet (Cat (Ch 46 46) dec_octet)))), Cat
        (Ch 32 32) port], [Rep 0 3 HEXDIG, Cat (Ch 32 32) port]], [[Rep 0 3 HEXDIG, Cat (Ch 58 58)
        h16, Cat (Ch 32 32) (Cat port ha_end)], [Cat (Ch 46 46) (Cat dec_octet (Cat (Ch 46 46)
        (Cat dec_octet (Cat (Ch 46 46) dec_octet)))), Cat (Ch 32 32) (Cat port ha_end)], [DIGIT,
        Cat (Ch 46 46) (Cat dec_octet (Cat (Ch 46 46) (Cat dec_octet (Cat (Ch 46 46)
        dec_octet)))), Cat (Ch 32 32) (Cat port ha_end)], [Rep 0 3 HEXDIG, Cat (Ch 32 32) (Cat
        port ha_end)]], [], [[Rep 0 3 HEXDIG, Cat (Ch 58 58) h16, Ch 32 32], [Cat (Ch 46 46) (Cat
        dec_octet (Cat (Ch 46 46) (Cat dec_octet (Cat (Ch 46 46) dec_octet)))), Ch 32 32], [DIGIT,
        Cat (Ch 46 46) (Cat dec_octet (Cat (Ch 46 46) (Cat dec_octet (Cat (Ch 46 46)
        dec_octet)))), Ch 32 32], [Rep 0 3 HEXDIG, Ch 32 32]]]])
      else
      if s = 126 then ([-128, 32, 33, 48, 58, 59, 65, 71, 97, 103], [[[], [], [[Rep 0 3 HEXDIG,
        Cat (Ch 58 58) h16, Cat (Ch 32 32) port], [Rep 0 3 HEXDIG, Cat (Ch 32 32) port]], [[Rep 0
        3 HEXDIG, Cat (Ch 58 58) h16, Cat (Ch 32 32) (Cat port ha_end)], [Rep 0 3 HEXDIG, Cat (Ch
        32 32) (Cat port ha_end)]], [], [[Rep 0 3 HEXDIG, Cat (Ch 58 58) h16, Ch 32 32], [Rep 0 3
        HEXDIG, Ch 32 32]]]])
      else
      if s = 127 then ([-128, 32, 33, 48, 49, 50, 51, 58, 65, 71, 97, 103], [[[], [], [[Cat
        h16_colon ls32, Cat (Ch 32 32) port], [ls32, Cat (Ch 32 32) port], [h16, Cat (Ch 32 32)
        port], [Cat (Ch 32 32) port]], [[Cat h16_colon ls32, Cat (Ch 32 32) (Cat port ha_end)],
        [ls32, Cat (Ch 32 32) (Cat port ha_end)], [h16, Cat (Ch 32 32) (Cat port ha_end)], [Cat
        (Ch 32 32) (Cat port ha_end)]], [], [[Cat h16_colon ls32, Ch 32 32], [ls32, Ch 32 32],
        [h16, Ch 32 32], [Ch 32 32]]]])
      else
      ([-128, 32, 33, 46, 47, 48, 58, 59, 65, 71, 97, 103], [[[], [], [[Rep 0 3 HEXDIG, Ch 58 58,
        ls32, Cat (Ch 32 32) port], [Rep 0 3 HEXDIG, Cat (Ch 58 58) h16, Cat (Ch 32 32) port],
        [Cat (Ch 46 46) (Cat dec_octet (Cat (Ch 46 46) (Cat dec_octet (Cat (Ch 46 46)
        dec_octet)))), Cat (Ch 32 32) port], [Rep 0 3 HEXDIG, Cat (Ch 32 32) port]], [[Rep 0 3
        HEXDIG, Ch 58 58, ls32, Cat (Ch 32 32) (Cat port ha_end)], [Rep 0 3 HEXDIG, Cat (Ch 58 58)
        h16, Cat (Ch 32 32) (Cat port ha_end)], [Cat (Ch 46 46) (Cat dec_octet (Cat (Ch 46 46)
        (Cat dec_octet (Cat (Ch 46 46) dec_octet)))), Cat (Ch 32 32) (Cat port ha_end)], [Rep 0 3
        HEXDIG, Cat (Ch 32 32) (Cat port ha_end)]], [], [[Rep 0 3 HEXDIG, Ch 58 58, ls32, Ch 32
        32], [Rep 0 3 HEXDIG, Cat (Ch 58 58) h16, Ch 32 32], [Cat (Ch 46 46) (Cat dec_octet (Cat
        (Ch 46 46) (Cat dec_octet (Cat (Ch 46 46) dec_octet)))), Ch 32 32], [Rep 0 3 HEXDIG, Ch 32
        32]]]]))"

definition ha_expects_17 :: certificate where
  "ha_expects_17 s =
     (if s = 129 then ([-128, 32, 33, 48, 58, 59, 65, 71, 97, 103], [[[], [], [[Rep 0 2 HEXDIG, Ch
        58 58, ls32, Cat (Ch 32 32) port], [Rep 0 2 HEXDIG, Cat (Ch 58 58) h16, Cat (Ch 32 32)
        port], [Rep 0 2 HEXDIG, Cat (Ch 32 32) port]], [[Rep 0 2 HEXDIG, Ch 58 58, ls32, Cat (Ch
        32 32) (Cat port ha_end)], [Rep 0 2 HEXDIG, Cat (Ch 58 58) h16, Cat (Ch 32 32) (Cat port
        ha_end)], [Rep 0 2 HEXDIG, Cat (Ch 32 32) (Cat port ha_end)]], [], [[Rep 0 2 HEXDIG, Ch 58
        58, ls32, Ch 32 32], [Rep 0 2 HEXDIG, Cat (Ch 58 58) h16, Ch 32 32], [Rep 0 2 HEXDIG, Ch
        32 32]]]])
      else
      if s = 130 then ([-128, 32, 33, 48, 58, 59, 65, 71, 97, 103], [[[], [], [[Rep 0 1 HEXDIG, Ch
        58 58, ls32, Cat (Ch 32 32) port], [Rep 0 1 HEXDIG, Cat (Ch 58 58) h16, Cat (Ch 32 32)
        port], [Rep 0 1 HEXDIG, Cat (Ch 32 32) port]], [[Rep 0 1 HEXDIG, Ch 58 58, ls32, Cat (Ch
        32 32) (Cat port ha_end)], [Rep 0 1 HEXDIG, Cat (Ch 58 58) h16, Cat (Ch 32 32) (Cat port
        ha_end)], [Rep 0 1 HEXDIG, Cat (Ch 32 32) (Cat port ha_end)]], [], [[Rep 0 1 HEXDIG, Ch 58
        58, ls32, Ch 32 32], [Rep 0 1 HEXDIG, Cat (Ch 58 58) h16, Ch 32 32], [Rep 0 1 HEXDIG, Ch
        32 32]]]])
      else
      if s = 131 then ([-128, 32, 33, 58, 59], [[[], [], [[Ch 58 58, ls32, Cat (Ch 32 32) port],
        [Cat (Ch 58 58) h16, Cat (Ch 32 32) port], [Cat (Ch 32 32) port]], [[Ch 58 58, ls32, Cat
        (Ch 32 32) (Cat port ha_end)], [Cat (Ch 58 58) h16, Cat (Ch 32 32) (Cat port ha_end)],
        [Cat (Ch 32 32) (Cat port ha_end)]], [], [[Ch 58 58, ls32, Ch 32 32], [Cat (Ch 58 58) h16,
        Ch 32 32], [Ch 32 32]]]])
      else
      if s = 132 then ([-128, 48, 49, 50, 51, 58, 65, 71, 97, 103], [[[], [], [[ls32, Cat (Ch 32
        32) port], [h16, Cat (Ch 32 32) port]], [[ls32, Cat (Ch 32 32) (Cat port ha_end)], [h16,
        Cat (Ch 32 32) (Cat port ha_end)]], [], [[ls32, Ch 32 32], [h16, Ch 32 32]]]])
      else
      if s = 133 then ([-128, 32, 33, 46, 47, 48, 58, 59, 65, 71, 97, 103], [[[], [], [[Rep 0 3
        HEXDIG, Ch 58 58, ls32, Cat (Ch 32 32) port], [Rep 0 3 HEXDIG, Cat (Ch 58 58) h16, Cat (Ch
        32 32) port], [Cat (Ch 46 46) (Cat dec_octet (Cat (Ch 46 46) (Cat dec_octet (Cat (Ch 46
        46) dec_octet)))), Cat (Ch 32 32) port], [DIGIT, Cat (Ch 46 46) (Cat dec_octet (Cat (Ch 46
        46) (Cat dec_octet (Cat (Ch 46 46) dec_octet)))), Cat (Ch 32 32) port], [Rep 2 2 DIGIT,
        Cat (Ch 46 46) (Cat dec_octet (Cat (Ch 46 46) (Cat dec_octet (Cat (Ch 46 46)
        dec_octet)))), Cat (Ch 32 32) port], [Rep 0 3 HEXDIG, Cat (Ch 32 32) port]], [[Rep 0 3
        HEXDIG, Ch 58 58, ls32, Cat (Ch 32 32) (Cat port ha_end)], [Rep 0 3 HEXDIG, Cat (Ch 58 58)
        h16, Cat (Ch 32 32) (Cat port ha_end)], [Cat (Ch 46 46) (Cat dec_octet (Cat (Ch 46 46)
        (Cat dec_octet (Cat (Ch 46 46) dec_octet)))), Cat (Ch 32 32) (Cat port ha_end)], [DIGIT,
        Cat (Ch 46 46) (Cat dec_octet (Cat (Ch 46 46) (Cat dec_octet (Cat (Ch 46 46)
        dec_octet)))), Cat (Ch 32 32) (Cat port ha_end)], [Rep 2 2 DIGIT, Cat (Ch 46 46) (Cat
        dec_octet (Cat (Ch 46 46) (Cat dec_octet (Cat (Ch 46 46) dec_octet)))), Cat (Ch 32 32)
        (Cat port ha_end)], [Rep 0 3 HEXDIG, Cat (Ch 32 32) (Cat port ha_end)]], [], [[Rep 0 3
        HEXDIG, Ch 58 58, ls32, Ch 32 32], [Rep 0 3 HEXDIG, Cat (Ch 58 58) h16, Ch 32 32], [Cat
        (Ch 46 46) (Cat dec_octet (Cat (Ch 46 46) (Cat dec_octet (Cat (Ch 46 46) dec_octet)))), Ch
        32 32], [DIGIT, Cat (Ch 46 46) (Cat dec_octet (Cat (Ch 46 46) (Cat dec_octet (Cat (Ch 46
        46) dec_octet)))), Ch 32 32], [Rep 2 2 DIGIT, Cat (Ch 46 46) (Cat dec_octet (Cat (Ch 46
        46) (Cat dec_octet (Cat (Ch 46 46) dec_octet)))), Ch 32 32], [Rep 0 3 HEXDIG, Ch 32
        32]]]])
      else
      if s = 134 then ([-128, 32, 33, 46, 47, 48, 58, 59, 65, 71, 97, 103], [[[], [], [[Rep 0 2
        HEXDIG, Ch 58 58, ls32, Cat (Ch 32 32) port], [Rep 0 2 HEXDIG, Cat (Ch 58 58) h16, Cat (Ch
        32 32) port], [Cat (Ch 46 46) (Cat dec_octet (Cat (Ch 46 46) (Cat dec_octet (Cat (Ch 46
        46) dec_octet)))), Cat (Ch 32 32) port], [DIGIT, Cat (Ch 46 46) (Cat dec_octet (Cat (Ch 46
        46) (Cat dec_octet (Cat (Ch 46 46) dec_octet)))), Cat (Ch 32 32) port], [Rep 0 2 HEXDIG,
        Cat (Ch 32 32) port]], [[Rep 0 2 HEXDIG, Ch 58 58, ls32, Cat (Ch 32 32) (Cat port
        ha_end)], [Rep 0 2 HEXDIG, Cat (Ch 58 58) h16, Cat (Ch 32 32) (Cat port ha_end)], [Cat (Ch
        46 46) (Cat dec_octet (Cat (Ch 46 46) (Cat dec_octet (Cat (Ch 46 46) dec_octet)))), Cat
        (Ch 32 32) (Cat port ha_end)], [DIGIT, Cat (Ch 46 46) (Cat dec_octet (Cat (Ch 46 46) (Cat
        dec_octet (Cat (Ch 46 46) dec_octet)))), Cat (Ch 32 32) (Cat port ha_end)], [Rep 0 2
        HEXDIG, Cat (Ch 32 32) (Cat port ha_end)]], [], [[Rep 0 2 HEXDIG, Ch 58 58, ls32, Ch 32
        32], [Rep 0 2 HEXDIG, Cat (Ch 58 58) h16, Ch 32 32], [Cat (Ch 46 46) (Cat dec_octet (Cat
        (Ch 46 46) (Cat dec_octet (Cat (Ch 46 46) dec_octet)))), Ch 32 32], [DIGIT, Cat (Ch 46 46)
        (Cat dec_octet (Cat (Ch 46 46) (Cat dec_octet (Cat (Ch 46 46) dec_octet)))), Ch 32 32],
        [Rep 0 2 HEXDIG, Ch 32 32]]]])
      else
      if s = 135 then ([-128, 32, 33, 46, 47, 48, 58, 59, 65, 71, 97, 103], [[[], [], [[Rep 0 1
        HEXDIG, Ch 58 58, ls32, Cat (Ch 32 32) port], [Rep 0 1 HEXDIG, Cat (Ch 58 58) h16, Cat (Ch
        32 32) port], [Cat (Ch 46 46) (Cat dec_octet (Cat (Ch 46 46) (Cat dec_octet (Cat (Ch 46
        46) dec_octet)))), Cat (Ch 32 32) port], [Rep 0 1 HEXDIG, Cat (Ch 32 32) port]], [[Rep 0 1
        HEXDIG, Ch 58 58, ls32, Cat (Ch 32 32) (Cat port ha_end)], [Rep 0 1 HEXDIG, Cat (Ch 58 58)
        h16, Cat (Ch 32 32) (Cat port ha_end)], [Cat (Ch 46 46) (Cat dec_octet (Cat (Ch 46 46)
        (Cat dec_octet (Cat (Ch 46 46) dec_octet)))), Cat (Ch 32 32) (Cat port ha_end)], [Rep 0 1
        HEXDIG, Cat (Ch 32 32) (Cat port ha_end)]], [], [[Rep 0 1 HEXDIG, Ch 58 58, ls32, Ch 32
        32], [Rep 0 1 HEXDIG, Cat (Ch 58 58) h16, Ch 32 32], [Cat (Ch 46 46) (Cat dec_octet (Cat
        (Ch 46 46) (Cat dec_octet (Cat (Ch 46 46) dec_octet)))), Ch 32 32], [Rep 0 1 HEXDIG, Ch 32
        32]]]])
      else
      ([-128, 32, 33, 46, 47, 48, 53, 54, 58, 59, 65, 71, 97, 103], [[[], [], [[Rep 0 3 HEXDIG, Ch
        58 58, ls32, Cat (Ch 32 32) port], [Rep 0 3 HEXDIG, Cat (Ch 58 58) h16, Cat (Ch 32 32)
        port], [Cat (Ch 46 46) (Cat dec_octet (Cat (Ch 46 46) (Cat dec_octet (Cat (Ch 46 46)
        dec_octet)))), Cat (Ch 32 32) port], [DIGIT, Cat (Ch 46 46) (Cat dec_octet (Cat (Ch 46 46)
        (Cat dec_octet (Cat (Ch 46 46) dec_octet)))), Cat (Ch 32 32) port], [Cat (Ch 48 52) DIGIT,
        Cat (Ch 46 46) (Cat dec_octet (Cat (Ch 46 46) (Cat dec_octet (Cat (Ch 46 46)
        dec_octet)))), Cat (Ch 32 32) port], [Cat (Ch 53 53) (Ch 48 53), Cat (Ch 46 46) (Cat
        dec_octet (Cat (Ch 46 46) (Cat dec_octet (Cat (Ch 46 46) dec_octet)))), Cat (Ch 32 32)
        port], [Rep 0 3 HEXDIG, Cat (Ch 32 32) port]], [[Rep 0 3 HEXDIG, Ch 58 58, ls32, Cat (Ch
        32 32) (Cat port ha_end)], [Rep 0 3 HEXDIG, Cat (Ch 58 58) h16, Cat (Ch 32 32) (Cat port
        ha_end)], [Cat (Ch 46 46) (Cat dec_octet (Cat (Ch 46 46) (Cat dec_octet (Cat (Ch 46 46)
        dec_octet)))), Cat (Ch 32 32) (Cat port ha_end)], [DIGIT, Cat (Ch 46 46) (Cat dec_octet
        (Cat (Ch 46 46) (Cat dec_octet (Cat (Ch 46 46) dec_octet)))), Cat (Ch 32 32) (Cat port
        ha_end)], [Cat (Ch 48 52) DIGIT, Cat (Ch 46 46) (Cat dec_octet (Cat (Ch 46 46) (Cat
        dec_octet (Cat (Ch 46 46) dec_octet)))), Cat (Ch 32 32) (Cat port ha_end)], [Cat (Ch 53
        53) (Ch 48 53), Cat (Ch 46 46) (Cat dec_octet (Cat (Ch 46 46) (Cat dec_octet (Cat (Ch 46
        46) dec_octet)))), Cat (Ch 32 32) (Cat port ha_end)], [Rep 0 3 HEXDIG, Cat (Ch 32 32) (Cat
        port ha_end)]], [], [[Rep 0 3 HEXDIG, Ch 58 58, ls32, Ch 32 32], [Rep 0 3 HEXDIG, Cat (Ch
        58 58) h16, Ch 32 32], [Cat (Ch 46 46) (Cat dec_octet (Cat (Ch 46 46) (Cat dec_octet (Cat
        (Ch 46 46) dec_octet)))), Ch 32 32], [DIGIT, Cat (Ch 46 46) (Cat dec_octet (Cat (Ch 46 46)
        (Cat dec_octet (Cat (Ch 46 46) dec_octet)))), Ch 32 32], [Cat (Ch 48 52) DIGIT, Cat (Ch 46
        46) (Cat dec_octet (Cat (Ch 46 46) (Cat dec_octet (Cat (Ch 46 46) dec_octet)))), Ch 32
        32], [Cat (Ch 53 53) (Ch 48 53), Cat (Ch 46 46) (Cat dec_octet (Cat (Ch 46 46) (Cat
        dec_octet (Cat (Ch 46 46) dec_octet)))), Ch 32 32], [Rep 0 3 HEXDIG, Ch 32 32]]]]))"

definition ha_expects_18 :: certificate where
  "ha_expects_18 s =
     (if s = 137 then ([-128, 32, 33, 46, 47, 48, 54, 58, 59, 65, 71, 97, 103], [[[], [], [[Rep 0
        2 HEXDIG, Ch 58 58, ls32, Cat (Ch 32 32) port], [Rep 0 2 HEXDIG, Cat (Ch 58 58) h16, Cat
        (Ch 32 32) port], [Cat (Ch 46 46) (Cat dec_octet (Cat (Ch 46 46) (Cat dec_octet (Cat (Ch
        46 46) dec_octet)))), Cat (Ch 32 32) port], [Ch 48 53, Cat (Ch 46 46) (Cat dec_octet (Cat
        (Ch 46 46) (Cat dec_octet (Cat (Ch 46 46) dec_octet)))), Cat (Ch 32 32) port], [Rep 0 2
        HEXDIG, Cat (Ch 32 32) port]], [[Rep 0 2 HEXDIG, Ch 58 58, ls32, Cat (Ch 32 32) (Cat port
        ha_end)], [Rep 0 2 HEXDIG, Cat (Ch 58 58) h16, Cat (Ch 32 32) (Cat port ha_end)], [Cat (Ch
        46 46) (Cat dec_octet (Cat (Ch 46 46) (Cat dec_octet (Cat (Ch 46 46) dec_octet)))), Cat
        (Ch 32 32) (Cat port ha_end)], [Ch 48 53, Cat (Ch 46 46) (Cat dec_octet (Cat (Ch 46 46)
        (Cat dec_octet (Cat (Ch 46 46) dec_octet)))), Cat (Ch 32 32) (Cat port ha_end)], [Rep 0 2
        HEXDIG, Cat (Ch 32 32) (Cat port ha_end)]], [], [[Rep 0 2 HEXDIG, Ch 58 58, ls32, Ch 32
        32], [Rep 0 2 HEXDIG, Cat (Ch 58 58) h16, Ch 32 32], [Cat (Ch 46 46) (Cat dec_octet (Cat
        (Ch 46 46) (Cat dec_octet (Cat (Ch 46 46) dec_octet)))), Ch 32 32], [Ch 48 53, Cat (Ch 46
        46) (Cat dec_octet (Cat (Ch 46 46) (Cat dec_octet (Cat (Ch 46 46) dec_octet)))), Ch 32
        32], [Rep 0 2 HEXDIG, Ch 32 32]]]])
      else
      if s = 138 then ([-128, 32, 33, 46, 47, 48, 58, 59, 65, 71, 97, 103], [[[], [], [[Rep 0 2
        HEXDIG, Ch 58 58, ls32, Cat (Ch 32 32) port], [Rep 0 2 HEXDIG, Cat (Ch 58 58) h16, Cat (Ch
        32 32) port], [Cat (Ch 46 46) (Cat dec_octet (Cat (Ch 46 46) (Cat dec_octet (Cat (Ch 46
        46) dec_octet)))), Cat (Ch 32 32) port], [Rep 0 2 HEXDIG, Cat (Ch 32 32) port]], [[Rep 0 2
        HEXDIG, Ch 58 58, ls32, Cat (Ch 32 32) (Cat port ha_end)], [Rep 0 2 HEXDIG, Cat (Ch 58 58)
        h16, Cat (Ch 32 32) (Cat port ha_end)], [Cat (Ch 46 46) (Cat dec_octet (Cat (Ch 46 46)
        (Cat dec_octet (Cat (Ch 46 46) dec_octet)))), Cat (Ch 32 32) (Cat port ha_end)], [Rep 0 2
        HEXDIG, Cat (Ch 32 32) (Cat port ha_end)]], [], [[Rep 0 2 HEXDIG, Ch 58 58, ls32, Ch 32
        32], [Rep 0 2 HEXDIG, Cat (Ch 58 58) h16, Ch 32 32], [Cat (Ch 46 46) (Cat dec_octet (Cat
        (Ch 46 46) (Cat dec_octet (Cat (Ch 46 46) dec_octet)))), Ch 32 32], [Rep 0 2 HEXDIG, Ch 32
        32]]]])
      else
      if s = 139 then ([-128, 32, 33, 46, 47, 48, 58, 59, 65, 71, 97, 103], [[[], [], [[Rep 0 3
        HEXDIG, Ch 58 58, ls32, Cat (Ch 32 32) port], [Rep 0 3 HEXDIG, Cat (Ch 58 58) h16, Cat (Ch
        32 32) port], [Cat (Ch 46 46) (Cat dec_octet (Cat (Ch 46 46) (Cat dec_octet (Cat (Ch 46
        46) dec_octet)))), Cat (Ch 32 32) port], [DIGIT, Cat (Ch 46 46) (Cat dec_octet (Cat (Ch 46
        46) (Cat dec_octet (Cat (Ch 46 46) dec_octet)))), Cat (Ch 32 32) port], [Rep 0 3 HEXDIG,
        Cat (Ch 32 32) port]], [[Rep 0 3 HEXDIG, Ch 58 58, ls32, Cat (Ch 32 32) (Cat port
        ha_end)], [Rep 0 3 HEXDIG, Cat (Ch 58 58) h16, Cat (Ch 32 32) (Cat port ha_end)], [Cat (Ch
        46 46) (Cat dec_octet (Cat (Ch 46 46) (Cat dec_octet (Cat (Ch 46 46) dec_octet)))), Cat
        (Ch 32 32) (Cat port ha_end)], [DIGIT, Cat (Ch 46 46) (Cat dec_octet (Cat (Ch 46 46) (Cat
        dec_octet (Cat (Ch 46 46) dec_octet)))), Cat (Ch 32 32) (Cat port ha_end)], [Rep 0 3
        HEXDIG, Cat (Ch 32 32) (Cat port ha_end)]], [], [[Rep 0 3 HEXDIG, Ch 58 58, ls32, Ch 32
        32], [Rep 0 3 HEXDIG, Cat (Ch 58 58) h16, Ch 32 32], [Cat (Ch 46 46) (Cat dec_octet (Cat
        (Ch 46 46) (Cat dec_octet (Cat (Ch 46 46) dec_octet)))), Ch 32 32], [DIGIT, Cat (Ch 46 46)
        (Cat dec_octet (Cat (Ch 46 46) (Cat dec_octet (Cat (Ch 46 46) dec_octet)))), Ch 32 32],
        [Rep 0 3 HEXDIG, Ch 32 32]]]])
      else
      if s = 140 then ([-128, 32, 33, 48, 58, 59, 65, 71, 97, 103], [[[], [], [[Rep 0 3 HEXDIG, Ch
        58 58, ls32, Cat (Ch 32 32) port], [Rep 0 3 HEXDIG, Cat (Ch 58 58) h16, Cat (Ch 32 32)
        port], [Rep 0 3 HEXDIG, Cat (Ch 32 32) port]], [[Rep 0 3 HEXDIG, Ch 58 58, ls32, Cat (Ch
        32 32) (Cat port ha_end)], [Rep 0 3 HEXDIG, Cat (Ch 58 58) h16, Cat (Ch 32 32) (Cat port
        ha_end)], [Rep 0 3 HEXDIG, Cat (Ch 32 32) (Cat port ha_end)]], [], [[Rep 0 3 HEXDIG, Ch 58
        58, ls32, Ch 32 32], [Rep 0 3 HEXDIG, Cat (Ch 58 58) h16, Ch 32 32], [Rep 0 3 HEXDIG, Ch
        32 32]]]])
      else
      if s = 141 then ([-128, 32, 33, 48, 49, 50, 51, 58, 65, 71, 97, 103], [[[], [], [[Cat (Rep 2
        2 h16_colon) ls32, Cat (Ch 32 32) port], [Cat h16_colon ls32, Cat (Ch 32 32) port], [ls32,
        Cat (Ch 32 32) port], [h16, Cat (Ch 32 32) port], [Cat (Ch 32 32) port]], [[Cat (Rep 2 2
        h16_colon) ls32, Cat (Ch 32 32) (Cat port ha_end)], [Cat h16_colon ls32, Cat (Ch 32 32)
        (Cat port ha_end)], [ls32, Cat (Ch 32 32) (Cat port ha_end)], [h16, Cat (Ch 32 32) (Cat
        port ha_end)], [Cat (Ch 32 32) (Cat port ha_end)]], [], [[Cat (Rep 2 2 h16_colon) ls32, Ch
        32 32], [Cat h16_colon ls32, Ch 32 32], [ls32, Ch 32 32], [h16, Ch 32 32], [Ch 32 32]]]])
      else
      if s = 142 then ([-128, 32, 33, 46, 47, 48, 58, 59, 65, 71, 97, 103], [[[], [], [[Rep 0 3
        HEXDIG, Ch 58 58, h16_colon, ls32, Cat (Ch 32 32) port], [Rep 0 3 HEXDIG, Ch 58 58, ls32,
        Cat (Ch 32 32) port], [Rep 0 3 HEXDIG, Cat (Ch 58 58) h16, Cat (Ch 32 32) port], [Cat (Ch
        46 46) (Cat dec_octet (Cat (Ch 46 46) (Cat dec_octet (Cat (Ch 46 46) dec_octet)))), Cat
        (Ch 32 32) port], [Rep 0 3 HEXDIG, Cat (Ch 32 32) port]], [[Rep 0 3 HEXDIG, Ch 58 58,
        h16_colon, ls32, Cat (Ch 32 32) (Cat port ha_end)], [Rep 0 3 HEXDIG, Ch 58 58, ls32, Cat
        (Ch 32 32) (Cat port ha_end)], [Rep 0 3 HEXDIG, Cat (Ch 58 58) h16, Cat (Ch 32 32) (Cat
        port ha_end)], [Cat (Ch 46 46) (Cat dec_octet (Cat (Ch 46 46) (Cat dec_octet (Cat (Ch 46
        46) dec_octet)))), Cat (Ch 32 32) (Cat port ha_end)], [Rep 0 3 HEXDIG, Cat (Ch 32 32) (Cat
        port ha_end)]], [], [[Rep 0 3 HEXDIG, Ch 58 58, h16_colon, ls32, Ch 32 32], [Rep 0 3
        HEXDIG, Ch 58 58, ls32, Ch 32 32], [Rep 0 3 HEXDIG, Cat (Ch 58 58) h16, Ch 32 32], [Cat
        (Ch 46 46) (Cat dec_octet (Cat (Ch 46 46) (Cat dec_octet (Cat (Ch 46 46) dec_octet)))), Ch
        32 32], [Rep 0 3 HEXDIG, Ch 32 32]]]])
      else
      if s = 143 then ([-128, 32, 33, 48, 58, 59, 65, 71, 97, 103], [[[], [], [[Rep 0 2 HEXDIG, Ch
        58 58, h16_colon, ls32, Cat (Ch 32 32) port], [Rep 0 2 HEXDIG, Ch 58 58, ls32, Cat (Ch 32
        32) port], [Rep 0 2 HEXDIG, Cat (Ch 58 58) h16, Cat (Ch 32 32) port], [Rep 0 2 HEXDIG, Cat
        (Ch 32 32) port]], [[Rep 0 2 HEXDIG, Ch 58 58, h16_colon, ls32, Cat (Ch 32 32) (Cat port
        ha_end)], [Rep 0 2 HEXDIG, Ch 58 58, ls32, Cat (Ch 32 32) (Cat port ha_end)], [Rep 0 2
        HEXDIG, Cat (Ch 58 58) h16, Cat (Ch 32 32) (Cat port ha_end)], [Rep 0 2 HEXDIG, Cat (Ch 32
        32) (Cat port ha_end)]], [], [[Rep 0 2 HEXDIG, Ch 58 58, h16_colon, ls32, Ch 32 32], [Rep
        0 2 HEXDIG, Ch 58 58, ls32, Ch 32 32], [Rep 0 2 HEXDIG, Cat (Ch 58 58) h16, Ch 32 32],
        [Rep 0 2 HEXDIG, Ch 32 32]]]])
      else
      ([-128, 32, 33, 48, 58, 59, 65, 71, 97, 103], [[[], [], [[Rep 0 1 HEXDIG, Ch 58 58,
        h16_colon, ls32, Cat (Ch 32 32) port], [Rep 0 1 HEXDIG, Ch 58 58, ls32, Cat (Ch 32 32)
        port], [Rep 0 1 HEXDIG, Cat (Ch 58 58) h16, Cat (Ch 32 32) port], [Rep 0 1 HEXDIG, Cat (Ch
        32 32) port]], [[Rep 0 1 HEXDIG, Ch 58 58, h16_colon, ls32, Cat (Ch 32 32) (Cat port
        ha_end)], [Rep 0 1 HEXDIG, Ch 58 58, ls32, Cat (Ch 32 32) (Cat port ha_end)], [Rep 0 1
        HEXDIG, Cat (Ch 58 58) h16, Cat (Ch 32 32) (Cat port ha_end)], [Rep 0 1 HEXDIG, Cat (Ch 32
        32) (Cat port ha_end)]], [], [[Rep 0 1 HEXDIG, Ch 58 58, h16_colon, ls32, Ch 32 32], [Rep
        0 1 HEXDIG, Ch 58 58, ls32, Ch 32 32], [Rep 0 1 HEXDIG, Cat (Ch 58 58) h16, Ch 32 32],
        [Rep 0 1 HEXDIG, Ch 32 32]]]]))"

definition ha_expects_19 :: certificate where
  "ha_expects_19 s =
     (if s = 145 then ([-128, 32, 33, 58, 59], [[[], [], [[Ch 58 58, h16_colon, ls32, Cat (Ch 32
        32) port], [Ch 58 58, ls32, Cat (Ch 32 32) port], [Cat (Ch 58 58) h16, Cat (Ch 32 32)
        port], [Cat (Ch 32 32) port]], [[Ch 58 58, h16_colon, ls32, Cat (Ch 32 32) (Cat port
        ha_end)], [Ch 58 58, ls32, Cat (Ch 32 32) (Cat port ha_end)], [Cat (Ch 58 58) h16, Cat (Ch
        32 32) (Cat port ha_end)], [Cat (Ch 32 32) (Cat port ha_end)]], [], [[Ch 58 58, h16_colon,
        ls32, Ch 32 32], [Ch 58 58, ls32, Ch 32 32], [Cat (Ch 58 58) h16, Ch 32 32], [Ch 32
        32]]]])
      else
      if s = 146 then ([-128, 48, 49, 50, 51, 58, 65, 71, 97, 103], [[[], [], [[h16_colon, ls32,
        Cat (Ch 32 32) port], [ls32, Cat (Ch 32 32) port], [h16, Cat (Ch 32 32) port]],
        [[h16_colon, ls32, Cat (Ch 32 32) (Cat port ha_end)], [ls32, Cat (Ch 32 32) (Cat port
        ha_end)], [h16, Cat (Ch 32 32) (Cat port ha_end)]], [], [[h16_colon, ls32, Ch 32 32],
        [ls32, Ch 32 32], [h16, Ch 32 32]]]])
      else
      if s = 147 then ([-128, 32, 33, 46, 47, 48, 58, 59, 65, 71, 97, 103], [[[], [], [[Rep 0 3
        HEXDIG, Ch 58 58, h16_colon, ls32, Cat (Ch 32 32) port], [Rep 0 3 HEXDIG, Ch 58 58, ls32,
        Cat (Ch 32 32) port], [Rep 0 3 HEXDIG, Cat (Ch 58 58) h16, Cat (Ch 32 32) port], [Cat (Ch
        46 46) (Cat dec_octet (Cat (Ch 46 46) (Cat dec_octet (Cat (Ch 46 46) dec_octet)))), Cat
        (Ch 32 32) port], [DIGIT, Cat (Ch 46 46) (Cat dec_octet (Cat (Ch 46 46) (Cat dec_octet
        (Cat (Ch 46 46) dec_octet)))), Cat (Ch 32 32) port], [Rep 2 2 DIGIT, Cat (Ch 46 46) (Cat
        dec_octet (Cat (Ch 46 46) (Cat dec_octet (Cat (Ch 46 46) dec_octet)))), Cat (Ch 32 32)
        port], [Rep 0 3 HEXDIG, Cat (Ch 32 32) port]], [[Rep 0 3 HEXDIG, Ch 58 58, h16_colon,
        ls32, Cat (Ch 32 32) (Cat port ha_end)], [Rep 0 3 HEXDIG, Ch 58 58, ls32, Cat (Ch 32 32)
        (Cat port ha_end)], [Rep 0 3 HEXDIG, Cat (Ch 58 58) h16, Cat (Ch 32 32) (Cat port
        ha_end)], [Cat (Ch 46 46) (Cat dec_octet (Cat (Ch 46 46) (Cat dec_octet (Cat (Ch 46 46)
        dec_octet)))), Cat (Ch 32 32) (Cat port ha_end)], [DIGIT, Cat (Ch 46 46) (Cat dec_octet
        (Cat (Ch 46 46) (Cat dec_octet (Cat (Ch 46 46) dec_octet)))), Cat (Ch 32 32) (Cat port
        ha_end)], [Rep 2 2 DIGIT, Cat (Ch 46 46) (Cat dec_octet (Cat (Ch 46 46) (Cat dec_octet
        (Cat (Ch 46 46) dec_octet)))), Cat (Ch 32 32) (Cat port ha_end)], [Rep 0 3 HEXDIG, Cat (Ch
        32 32) (Cat port ha_end)]], [], [[Rep 0 3 HEXDIG, Ch 58 58, h16_colon, ls32, Ch 32 32],
        [Rep 0 3 HEXDIG, Ch 58 58, ls32, Ch 32 32], [Rep 0 3 HEXDIG, Cat (Ch 58 58) h16, Ch 32
        32], [Cat (Ch 46 46) (Cat dec_octet (Cat (Ch 46 46) (Cat dec_octet (Cat (Ch 46 46)
        dec_octet)))), Ch 32 32], [DIGIT, Cat (Ch 46 46) (Cat dec_octet (Cat (Ch 46 46) (Cat
        dec_octet (Cat (Ch 46 46) dec_octet)))), Ch 32 32], [Rep 2 2 DIGIT, Cat (Ch 46 46) (Cat
        dec_octet (Cat (Ch 46 46) (Cat dec_octet (Cat (Ch 46 46) dec_octet)))), Ch 32 32], [Rep 0
        3 HEXDIG, Ch 32 32]]]])
      else
      if s = 148 then ([-128, 32, 33, 46, 47, 48, 58, 59, 65, 71, 97, 103], [[[], [], [[Rep 0 2
        HEXDIG, Ch 58 58, h16_colon, ls32, Cat (Ch 32 32) port], [Rep 0 2 HEXDIG, Ch 58 58, ls32,
        Cat (Ch 32 32) port], [Rep 0 2 HEXDIG, Cat (Ch 58 58) h16, Cat (Ch 32 32) port], [Cat (Ch
        46 46) (Cat dec_octet (Cat (Ch 46 46) (Cat dec_octet (Cat (Ch 46 46) dec_octet)))), Cat
        (Ch 32 32) port], [DIGIT, Cat (Ch 46 46) (Cat dec_octet (Cat (Ch 46 46) (Cat dec_octet
        (Cat (Ch 46 46) dec_octet)))), Cat (Ch 32 32) port], [Rep 0 2 HEXDIG, Cat (Ch 32 32)
        port]], [[Rep 0 2 HEXDIG, Ch 58 58, h16_colon, ls32, Cat (Ch 32 32) (Cat port ha_end)],
        [Rep 0 2 HEXDIG, Ch 58 58, ls32, Cat (Ch 32 32) (Cat port ha_end)], [Rep 0 2 HEXDIG, Cat
        (Ch 58 58) h16, Cat (Ch 32 32) (Cat port ha_end)], [Cat (Ch 46 46) (Cat dec_octet (Cat (Ch
        46 46) (Cat dec_octet (Cat (Ch 46 46) dec_octet)))), Cat (Ch 32 32) (Cat port ha_end)],
        [DIGIT, Cat (Ch 46 46) (Cat dec_octet (Cat (Ch 46 46) (Cat dec_octet (Cat (Ch 46 46)
        dec_octet)))), Cat (Ch 32 32) (Cat port ha_end)], [Rep 0 2 HEXDIG, Cat (Ch 32 32) (Cat
        port ha_end)]], [], [[Rep 0 2 HEXDIG, Ch 58 58, h16_colon, ls32, Ch 32 32], [Rep 0 2
        HEXDIG, Ch 58 58, ls32, Ch 32 32], [Rep 0 2 HEXDIG, Cat (Ch 58 58) h16, Ch 32 32], [Cat
        (Ch 46 46) (Cat dec_octet (Cat (Ch 46 46) (Cat dec_octet (Cat (Ch 46 46) dec_octet)))), Ch
        32 32], [DIGIT, Cat (Ch 46 46) (Cat dec_octet (Cat (Ch 46 46) (Cat dec_octet (Cat (Ch 46
        46) dec_octet)))), Ch 32 32], [Rep 0 2 HEXDIG, Ch 32 32]]]])
      else
      if s = 149 then ([-128, 32, 33, 46, 47, 48, 58, 59, 65, 71, 97, 103], [[[], [], [[Rep 0 1
        HEXDIG, Ch 58 58, h16_colon, ls32, Cat (Ch 32 32) port], [Rep 0 1 HEXDIG, Ch 58 58, ls32,
        Cat (Ch 32 32) port], [Rep 0 1 HEXDIG, Cat (Ch 58 58) h16, Cat (Ch 32 32) port], [Cat (Ch
        46 46) (Cat dec_octet (Cat (Ch 46 46) (Cat dec_octet (Cat (Ch 46 46) dec_octet)))), Cat
        (Ch 32 32) port], [Rep 0 1 HEXDIG, Cat (Ch 32 32) port]], [[Rep 0 1 HEXDIG, Ch 58 58,
        h16_colon, ls32, Cat (Ch 32 32) (Cat port ha_end)], [Rep 0 1 HEXDIG, Ch 58 58, ls32, Cat
        (Ch 32 32) (Cat port ha_end)], [Rep 0 1 HEXDIG, Cat (Ch 58 58) h16, Cat (Ch 32 32) (Cat
        port ha_end)], [Cat (Ch 46 46) (Cat dec_octet (Cat (Ch 46 46) (Cat dec_octet (Cat (Ch 46
        46) dec_octet)))), Cat (Ch 32 32) (Cat port ha_end)], [Rep 0 1 HEXDIG, Cat (Ch 32 32) (Cat
        port ha_end)]], [], [[Rep 0 1 HEXDIG, Ch 58 58, h16_colon, ls32, Ch 32 32], [Rep 0 1
        HEXDIG, Ch 58 58, ls32, Ch 32 32], [Rep 0 1 HEXDIG, Cat (Ch 58 58) h16, Ch 32 32], [Cat
        (Ch 46 46) (Cat dec_octet (Cat (Ch 46 46) (Cat dec_octet (Cat (Ch 46 46) dec_octet)))), Ch
        32 32], [Rep 0 1 HEXDIG, Ch 32 32]]]])
      else
      if s = 150 then ([-128, 32, 33, 46, 47, 48, 53, 54, 58, 59, 65, 71, 97, 103], [[[], [],
        [[Rep 0 3 HEXDIG, Ch 58 58, h16_colon, ls32, Cat (Ch 32 32) port], [Rep 0 3 HEXDIG, Ch 58
        58, ls32, Cat (Ch 32 32) port], [Rep 0 3 HEXDIG, Cat (Ch 58 58) h16, Cat (Ch 32 32) port],
        [Cat (Ch 46 46) (Cat dec_octet (Cat (Ch 46 46) (Cat dec_octet (Cat (Ch 46 46)
        dec_octet)))), Cat (Ch 32 32) port], [DIGIT, Cat (Ch 46 46) (Cat dec_octet (Cat (Ch 46 46)
        (Cat dec_octet (Cat (Ch 46 46) dec_octet)))), Cat (Ch 32 32) port], [Cat (Ch 48 52) DIGIT,
        Cat (Ch 46 46) (Cat dec_octet (Cat (Ch 46 46) (Cat dec_octet (Cat (Ch 46 46)
        dec_octet)))), Cat (Ch 32 32) port], [Cat (Ch 53 53) (Ch 48 53), Cat (Ch 46 46) (Cat
        dec_octet (Cat (Ch 46 46) (Cat dec_octet (Cat (Ch 46 46) dec_octet)))), Cat (Ch 32 32)
        port], [Rep 0 3 HEXDIG, Cat (Ch 32 32) port]], [[Rep 0 3 HEXDIG, Ch 58 58, h16_colon,
        ls32, Cat (Ch 32 32) (Cat port ha_end)], [Rep 0 3 HEXDIG, Ch 58 58, ls32, Cat (Ch 32 32)
        (Cat port ha_end)], [Rep 0 3 HEXDIG, Cat (Ch 58 58) h16, Cat (Ch 32 32) (Cat port
        ha_end)], [Cat (Ch 46 46) (Cat dec_octet (Cat (Ch 46 46) (Cat dec_octet (Cat (Ch 46 46)
        dec_octet)))), Cat (Ch 32 32) (Cat port ha_end)], [DIGIT, Cat (Ch 46 46) (Cat dec_octet
        (Cat (Ch 46 46) (Cat dec_octet (Cat (Ch 46 46) dec_octet)))), Cat (Ch 32 32) (Cat port
        ha_end)], [Cat (Ch 48 52) DIGIT, Cat (Ch 46 46) (Cat dec_octet (Cat (Ch 46 46) (Cat
        dec_octet (Cat (Ch 46 46) dec_octet)))), Cat (Ch 32 32) (Cat port ha_end)], [Cat (Ch 53
        53) (Ch 48 53), Cat (Ch 46 46) (Cat dec_octet (Cat (Ch 46 46) (Cat dec_octet (Cat (Ch 46
        46) dec_octet)))), Cat (Ch 32 32) (Cat port ha_end)], [Rep 0 3 HEXDIG, Cat (Ch 32 32) (Cat
        port ha_end)]], [], [[Rep 0 3 HEXDIG, Ch 58 58, h16_colon, ls32, Ch 32 32], [Rep 0 3
        HEXDIG, Ch 58 58, ls32, Ch 32 32], [Rep 0 3 HEXDIG, Cat (Ch 58 58) h16, Ch 32 32], [Cat
        (Ch 46 46) (Cat dec_octet (Cat (Ch 46 46) (Cat dec_octet (Cat (Ch 46 46) dec_octet)))), Ch
        32 32], [DIGIT, Cat (Ch 46 46) (Cat dec_octet (Cat (Ch 46 46) (Cat dec_octet (Cat (Ch 46
        46) dec_octet)))), Ch 32 32], [Cat (Ch 48 52) DIGIT, Cat (Ch 46 46) (Cat dec_octet (Cat
        (Ch 46 46) (Cat dec_octet (Cat (Ch 46 46) dec_octet)))), Ch 32 32], [Cat (Ch 53 53) (Ch 48
        53), Cat (Ch 46 46) (Cat dec_octet (Cat (Ch 46 46) (Cat dec_octet (Cat (Ch 46 46)
        dec_octet)))), Ch 32 32], [Rep 0 3 HEXDIG, Ch 32 32]]]])
      else
      if s = 151 then ([-128, 32, 33, 46, 47, 48, 54, 58, 59, 65, 71, 97, 103], [[[], [], [[Rep 0
        2 HEXDIG, Ch 58 58, h16_colon, ls32, Cat (Ch 32 32) port], [Rep 0 2 HEXDIG, Ch 58 58,
        ls32, Cat (Ch 32 32) port], [Rep 0 2 HEXDIG, Cat (Ch 58 58) h16, Cat (Ch 32 32) port],
        [Cat (Ch 46 46) (Cat dec_octet (Cat (Ch 46 46) (Cat dec_octet (Cat (Ch 46 46)
        dec_octet)))), Cat (Ch 32 32) port], [Ch 48 53, Cat (Ch 46 46) (Cat dec_octet (Cat (Ch 46
        46) (Cat dec_octet (Cat (Ch 46 46) dec_octet)))), Cat (Ch 32 32) port], [Rep 0 2 HEXDIG,
        Cat (Ch 32 32) port]], [[Rep 0 2 HEXDIG, Ch 58 58, h16_colon, ls32, Cat (Ch 32 32) (Cat
        port ha_end)], [Rep 0 2 HEXDIG, Ch 58 58, ls32, Cat (Ch 32 32) (Cat port ha_end)], [Rep 0
        2 HEXDIG, Cat (Ch 58 58) h16, Cat (Ch 32 32) (Cat port ha_end)], [Cat (Ch 46 46) (Cat
        dec_octet (Cat (Ch 46 46) (Cat dec_octet (Cat (Ch 46 46) dec_octet)))), Cat (Ch 32 32)
        (Cat port ha_end)], [Ch 48 53, Cat (Ch 46 46) (Cat dec_octet (Cat (Ch 46 46) (Cat
        dec_octet (Cat (Ch 46 46) dec_octet)))), Cat (Ch 32 32) (Cat port ha_end)], [Rep 0 2
        HEXDIG, Cat (Ch 32 32) (Cat port ha_end)]], [], [[Rep 0 2 HEXDIG, Ch 58 58, h16_colon,
        ls32, Ch 32 32], [Rep 0 2 HEXDIG, Ch 58 58, ls32, Ch 32 32], [Rep 0 2 HEXDIG, Cat (Ch 58
        58) h16, Ch 32 32], [Cat (Ch 46 46) (Cat dec_octet (Cat (Ch 46 46) (Cat dec_octet (Cat (Ch
        46 46) dec_octet)))), Ch 32 32], [Ch 48 53, Cat (Ch 46 46) (Cat dec_octet (Cat (Ch 46 46)
        (Cat dec_octet (Cat (Ch 46 46) dec_octet)))), Ch 32 32], [Rep 0 2 HEXDIG, Ch 32 32]]]])
      else
      ([-128, 32, 33, 46, 47, 48, 58, 59, 65, 71, 97, 103], [[[], [], [[Rep 0 2 HEXDIG, Ch 58 58,
        h16_colon, ls32, Cat (Ch 32 32) port], [Rep 0 2 HEXDIG, Ch 58 58, ls32, Cat (Ch 32 32)
        port], [Rep 0 2 HEXDIG, Cat (Ch 58 58) h16, Cat (Ch 32 32) port], [Cat (Ch 46 46) (Cat
        dec_octet (Cat (Ch 46 46) (Cat dec_octet (Cat (Ch 46 46) dec_octet)))), Cat (Ch 32 32)
        port], [Rep 0 2 HEXDIG, Cat (Ch 32 32) port]], [[Rep 0 2 HEXDIG, Ch 58 58, h16_colon,
        ls32, Cat (Ch 32 32) (Cat port ha_end)], [Rep 0 2 HEXDIG, Ch 58 58, ls32, Cat (Ch 32 32)
        (Cat port ha_end)], [Rep 0 2 HEXDIG, Cat (Ch 58 58) h16, Cat (Ch 32 32) (Cat port
        ha_end)], [Cat (Ch 46 46) (Cat dec_octet (Cat (Ch 46 46) (Cat dec_octet (Cat (Ch 46 46)
        dec_octet)))), Cat (Ch 32 32) (Cat port ha_end)], [Rep 0 2 HEXDIG, Cat (Ch 32 32) (Cat
        port ha_end)]], [], [[Rep 0 2 HEXDIG, Ch 58 58, h16_colon, ls32, Ch 32 32], [Rep 0 2
        HEXDIG, Ch 58 58, ls32, Ch 32 32], [Rep 0 2 HEXDIG, Cat (Ch 58 58) h16, Ch 32 32], [Cat
        (Ch 46 46) (Cat dec_octet (Cat (Ch 46 46) (Cat dec_octet (Cat (Ch 46 46) dec_octet)))), Ch
        32 32], [Rep 0 2 HEXDIG, Ch 32 32]]]]))"

definition ha_expects_20 :: certificate where
  "ha_expects_20 s =
     (if s = 153 then ([-128, 32, 33, 46, 47, 48, 58, 59, 65, 71, 97, 103], [[[], [], [[Rep 0 3
        HEXDIG, Ch 58 58, h16_colon, ls32, Cat (Ch 32 32) port], [Rep 0 3 HEXDIG, Ch 58 58, ls32,
        Cat (Ch 32 32) port], [Rep 0 3 HEXDIG, Cat (Ch 58 58) h16, Cat (Ch 32 32) port], [Cat (Ch
        46 46) (Cat dec_octet (Cat (Ch 46 46) (Cat dec_octet (Cat (Ch 46 46) dec_octet)))), Cat
        (Ch 32 32) port], [DIGIT, Cat (Ch 46 46) (Cat dec_octet (Cat (Ch 46 46) (Cat dec_octet
        (Cat (Ch 46 46) dec_octet)))), Cat (Ch 32 32) port], [Rep 0 3 HEXDIG, Cat (Ch 32 32)
        port]], [[Rep 0 3 HEXDIG, Ch 58 58, h16_colon, ls32, Cat (Ch 32 32) (Cat port ha_end)],
        [Rep 0 3 HEXDIG, Ch 58 58, ls32, Cat (Ch 32 32) (Cat port ha_end)], [Rep 0 3 HEXDIG, Cat
        (Ch 58 58) h16, Cat (Ch 32 32) (Cat port ha_end)], [Cat (Ch 46 46) (Cat dec_octet (Cat (Ch
        46 46) (Cat dec_octet (Cat (Ch 46 46) dec_octet)))), Cat (Ch 32 32) (Cat port ha_end)],
        [DIGIT, Cat (Ch 46 46) (Cat dec_octet (Cat (Ch 46 46) (Cat dec_octet (Cat (Ch 46 46)
        dec_octet)))), Cat (Ch 32 32) (Cat port ha_end)], [Rep 0 3 HEXDIG, Cat (Ch 32 32) (Cat
        port ha_end)]], [], [[Rep 0 3 HEXDIG, Ch 58 58, h16_colon, ls32, Ch 32 32], [Rep 0 3
        HEXDIG, Ch 58 58, ls32, Ch 32 32], [Rep 0 3 HEXDIG, Cat (Ch 58 58) h16, Ch 32 32], [Cat
        (Ch 46 46) (Cat dec_octet (Cat (Ch 46 46) (Cat dec_octet (Cat (Ch 46 46) dec_octet)))), Ch
        32 32], [DIGIT, Cat (Ch 46 46) (Cat dec_octet (Cat (Ch 46 46) (Cat dec_octet (Cat (Ch 46
        46) dec_octet)))), Ch 32 32], [Rep 0 3 HEXDIG, Ch 32 32]]]])
      else
      if s = 154 then ([-128, 32, 33, 48, 58, 59, 65, 71, 97, 103], [[[], [], [[Rep 0 3 HEXDIG, Ch
        58 58, h16_colon, ls32, Cat (Ch 32 32) port], [Rep 0 3 HEXDIG, Ch 58 58, ls32, Cat (Ch 32
        32) port], [Rep 0 3 HEXDIG, Cat (Ch 58 58) h16, Cat (Ch 32 32) port], [Rep 0 3 HEXDIG, Cat
        (Ch 32 32) port]], [[Rep 0 3 HEXDIG, Ch 58 58, h16_colon, ls32, Cat (Ch 32 32) (Cat port
        ha_end)], [Rep 0 3 HEXDIG, Ch 58 58, ls32, Cat (Ch 32 32) (Cat port ha_end)], [Rep 0 3
        HEXDIG, Cat (Ch 58 58) h16, Cat (Ch 32 32) (Cat port ha_end)], [Rep 0 3 HEXDIG, Cat (Ch 32
        32) (Cat port ha_end)]], [], [[Rep 0 3 HEXDIG, Ch 58 58, h16_colon, ls32, Ch 32 32], [Rep
        0 3 HEXDIG, Ch 58 58, ls32, Ch 32 32], [Rep 0 3 HEXDIG, Cat (Ch 58 58) h16, Ch 32 32],
        [Rep 0 3 HEXDIG, Ch 32 32]]]])
      else
      if s = 155 then ([-128, 32, 33, 48, 49, 50, 51, 58, 65, 71, 97, 103], [[[], [], [[Cat (Rep 3
        3 h16_colon) ls32, Cat (Ch 32 32) port], [Cat (Rep 2 2 h16_colon) ls32, Cat (Ch 32 32)
        port], [Cat h16_colon ls32, Cat (Ch 32 32) port], [ls32, Cat (Ch 32 32) port], [h16, Cat
        (Ch 32 32) port], [Cat (Ch 32 32) port]], [[Cat (Rep 3 3 h16_colon) ls32, Cat (Ch 32 32)
        (Cat port ha_end)], [Cat (Rep 2 2 h16_colon) ls32, Cat (Ch 32 32) (Cat port ha_end)], [Cat
        h16_colon ls32, Cat (Ch 32 32) (Cat port ha_end)], [ls32, Cat (Ch 32 32) (Cat port
        ha_end)], [h16, Cat (Ch 32 32) (Cat port ha_end)], [Cat (Ch 32 32) (Cat port ha_end)]],
        [], [[Cat (Rep 3 3 h16_colon) ls32, Ch 32 32], [Cat (Rep 2 2 h16_colon) ls32, Ch 32 32],
        [Cat h16_colon ls32, Ch 32 32], [ls32, Ch 32 32], [h16, Ch 32 32], [Ch 32 32]]]])
      else
      if s = 156 then ([-128, 32, 33, 46, 47, 48, 58, 59, 65, 71, 97, 103], [[[], [], [[Rep 0 3
        HEXDIG, Ch 58 58, Rep 2 2 h16_colon, ls32, Cat (Ch 32 32) port], [Rep 0 3 HEXDIG, Ch 58
        58, h16_colon, ls32, Cat (Ch 32 32) port], [Rep 0 3 HEXDIG, Ch 58 58, ls32, Cat (Ch 32 32)
        port], [Rep 0 3 HEXDIG, Cat (Ch 58 58) h16, Cat (Ch 32 32) port], [Cat (Ch 46 46) (Cat
        dec_octet (Cat (Ch 46 46) (Cat dec_octet (Cat (Ch 46 46) dec_octet)))), Cat (Ch 32 32)
        port], [Rep 0 3 HEXDIG, Cat (Ch 32 32) port]], [[Rep 0 3 HEXDIG, Ch 58 58, Rep 2 2
        h16_colon, ls32, Cat (Ch 32 32) (Cat port ha_end)], [Rep 0 3 HEXDIG, Ch 58 58, h16_colon,
        ls32, Cat (Ch 32 32) (Cat port ha_end)], [Rep 0 3 HEXDIG, Ch 58 58, ls32, Cat (Ch 32 32)
        (Cat port ha_end)], [Rep 0 3 HEXDIG, Cat (Ch 58 58) h16, Cat (Ch 32 32) (Cat port
        ha_end)], [Cat (Ch 46 46) (Cat dec_octet (Cat (Ch 46 46) (Cat dec_octet (Cat (Ch 46 46)
        dec_octet)))), Cat (Ch 32 32) (Cat port ha_end)], [Rep 0 3 HEXDIG, Cat (Ch 32 32) (Cat
        port ha_end)]], [], [[Rep 0 3 HEXDIG, Ch 58 58, Rep 2 2 h16_colon, ls32, Ch 32 32], [Rep 0
        3 HEXDIG, Ch 58 58, h16_colon, ls32, Ch 32 32], [Rep 0 3 HEXDIG, Ch 58 58, ls32, Ch 32
        32], [Rep 0 3 HEXDIG, Cat (Ch 58 58) h16, Ch 32 32], [Cat (Ch 46 46) (Cat dec_octet (Cat
        (Ch 46 46) (Cat dec_octet (Cat (Ch 46 46) dec_octet)))), Ch 32 32], [Rep 0 3 HEXDIG, Ch 32
        32]]]])
      else
      if s = 157 then ([-128, 32, 33, 48, 58, 59, 65, 71, 97, 103], [[[], [], [[Rep 0 2 HEXDIG, Ch
        58 58, Rep 2 2 h16_colon, ls32, Cat (Ch 32 32) port], [Rep 0 2 HEXDIG, Ch 58 58,
        h16_colon, ls32, Cat (Ch 32 32) port], [Rep 0 2 HEXDIG, Ch 58 58, ls32, Cat (Ch 32 32)
        port], [Rep 0 2 HEXDIG, Cat (Ch 58 58) h16, Cat (Ch 32 32) port], [Rep 0 2 HEXDIG, Cat (Ch
        32 32) port]], [[Rep 0 2 HEXDIG, Ch 58 58, Rep 2 2 h16_colon, ls32, Cat (Ch 32 32) (Cat
        port ha_end)], [Rep 0 2 HEXDIG, Ch 58 58, h16_colon, ls32, Cat (Ch 32 32) (Cat port
        ha_end)], [Rep 0 2 HEXDIG, Ch 58 58, ls32, Cat (Ch 32 32) (Cat port ha_end)], [Rep 0 2
        HEXDIG, Cat (Ch 58 58) h16, Cat (Ch 32 32) (Cat port ha_end)], [Rep 0 2 HEXDIG, Cat (Ch 32
        32) (Cat port ha_end)]], [], [[Rep 0 2 HEXDIG, Ch 58 58, Rep 2 2 h16_colon, ls32, Ch 32
        32], [Rep 0 2 HEXDIG, Ch 58 58, h16_colon, ls32, Ch 32 32], [Rep 0 2 HEXDIG, Ch 58 58,
        ls32, Ch 32 32], [Rep 0 2 HEXDIG, Cat (Ch 58 58) h16, Ch 32 32], [Rep 0 2 HEXDIG, Ch 32
        32]]]])
      else
      if s = 158 then ([-128, 32, 33, 48, 58, 59, 65, 71, 97, 103], [[[], [], [[Rep 0 1 HEXDIG, Ch
        58 58, Rep 2 2 h16_colon, ls32, Cat (Ch 32 32) port], [Rep 0 1 HEXDIG, Ch 58 58,
        h16_colon, ls32, Cat (Ch 32 32) port], [Rep 0 1 HEXDIG, Ch 58 58, ls32, Cat (Ch 32 32)
        port], [Rep 0 1 HEXDIG, Cat (Ch 58 58) h16, Cat (Ch 32 32) port], [Rep 0 1 HEXDIG, Cat (Ch
        32 32) port]], [[Rep 0 1 HEXDIG, Ch 58 58, Rep 2 2 h16_colon, ls32, Cat (Ch 32 32) (Cat
        port ha_end)], [Rep 0 1 HEXDIG, Ch 58 58, h16_colon, ls32, Cat (Ch 32 32) (Cat port
        ha_end)], [Rep 0 1 HEXDIG, Ch 58 58, ls32, Cat (Ch 32 32) (Cat port ha_end)], [Rep 0 1
        HEXDIG, Cat (Ch 58 58) h16, Cat (Ch 32 32) (Cat port ha_end)], [Rep 0 1 HEXDIG, Cat (Ch 32
        32) (Cat port ha_end)]], [], [[Rep 0 1 HEXDIG, Ch 58 58, Rep 2 2 h16_colon, ls32, Ch 32
        32], [Rep 0 1 HEXDIG, Ch 58 58, h16_colon, ls32, Ch 32 32], [Rep 0 1 HEXDIG, Ch 58 58,
        ls32, Ch 32 32], [Rep 0 1 HEXDIG, Cat (Ch 58 58) h16, Ch 32 32], [Rep 0 1 HEXDIG, Ch 32
        32]]]])
      else
      if s = 159 then ([-128, 32, 33, 58, 59], [[[], [], [[Ch 58 58, Rep 2 2 h16_colon, ls32, Cat
        (Ch 32 32) port], [Ch 58 58, h16_colon, ls32, Cat (Ch 32 32) port], [Ch 58 58, ls32, Cat
        (Ch 32 32) port], [Cat (Ch 58 58) h16, Cat (Ch 32 32) port], [Cat (Ch 32 32) port]], [[Ch
        58 58, Rep 2 2 h16_colon, ls32, Cat (Ch 32 32) (Cat port ha_end)], [Ch 58 58, h16_colon,
        ls32, Cat (Ch 32 32) (Cat port ha_end)], [Ch 58 58, ls32, Cat (Ch 32 32) (Cat port
        ha_end)], [Cat (Ch 58 58) h16, Cat (Ch 32 32) (Cat port ha_end)], [Cat (Ch 32 32) (Cat
        port ha_end)]], [], [[Ch 58 58, Rep 2 2 h16_colon, ls32, Ch 32 32], [Ch 58 58, h16_colon,
        ls32, Ch 32 32], [Ch 58 58, ls32, Ch 32 32], [Cat (Ch 58 58) h16, Ch 32 32], [Ch 32
        32]]]])
      else
      ([-128, 48, 49, 50, 51, 58, 65, 71, 97, 103], [[[], [], [[Rep 2 2 h16_colon, ls32, Cat (Ch
        32 32) port], [h16_colon, ls32, Cat (Ch 32 32) port], [ls32, Cat (Ch 32 32) port], [h16,
        Cat (Ch 32 32) port]], [[Rep 2 2 h16_colon, ls32, Cat (Ch 32 32) (Cat port ha_end)],
        [h16_colon, ls32, Cat (Ch 32 32) (Cat port ha_end)], [ls32, Cat (Ch 32 32) (Cat port
        ha_end)], [h16, Cat (Ch 32 32) (Cat port ha_end)]], [], [[Rep 2 2 h16_colon, ls32, Ch 32
        32], [h16_colon, ls32, Ch 32 32], [ls32, Ch 32 32], [h16, Ch 32 32]]]]))"

definition ha_expects_21 :: certificate where
  "ha_expects_21 s =
     (if s = 161 then ([-128, 32, 33, 46, 47, 48, 58, 59, 65, 71, 97, 103], [[[], [], [[Rep 0 3
        HEXDIG, Ch 58 58, Rep 2 2 h16_colon, ls32, Cat (Ch 32 32) port], [Rep 0 3 HEXDIG, Ch 58
        58, h16_colon, ls32, Cat (Ch 32 32) port], [Rep 0 3 HEXDIG, Ch 58 58, ls32, Cat (Ch 32 32)
        port], [Rep 0 3 HEXDIG, Cat (Ch 58 58) h16, Cat (Ch 32 32) port], [Cat (Ch 46 46) (Cat
        dec_octet (Cat (Ch 46 46) (Cat dec_octet (Cat (Ch 46 46) dec_octet)))), Cat (Ch 32 32)
        port], [DIGIT, Cat (Ch 46 46) (Cat dec_octet (Cat (Ch 46 46) (Cat dec_octet (Cat (Ch 46
        46) dec_octet)))), Cat (Ch 32 32) port], [Rep 2 2 DIGIT, Cat (Ch 46 46) (Cat dec_octet
        (Cat (Ch 46 46) (Cat dec_octet (Cat (Ch 46 46) dec_octet)))), Cat (Ch 32 32) port], [Rep 0
        3 HEXDIG, Cat (Ch 32 32) port]], [[Rep 0 3 HEXDIG, Ch 58 58, Rep 2 2 h16_colon, ls32, Cat
        (Ch 32 32) (Cat port ha_end)], [Rep 0 3 HEXDIG, Ch 58 58, h16_colon, ls32, Cat (Ch 32 32)
        (Cat port ha_end)], [Rep 0 3 HEXDIG, Ch 58 58, ls32, Cat (Ch 32 32) (Cat port ha_end)],
        [Rep 0 3 HEXDIG, Cat (Ch 58 58) h16, Cat (Ch 32 32) (Cat port ha_end)], [Cat (Ch 46 46)
        (Cat dec_octet (Cat (Ch 46 46) (Cat dec_octet (Cat (Ch 46 46) dec_octet)))), Cat (Ch 32
        32) (Cat port ha_end)], [DIGIT, Cat (Ch 46 46) (Cat dec_octet (Cat (Ch 46 46) (Cat
        dec_octet (Cat (Ch 46 46) dec_octet)))), Cat (Ch 32 32) (Cat port ha_end)], [Rep 2 2
        DIGIT, Cat (Ch 46 46) (Cat dec_octet (Cat (Ch 46 46) (Cat dec_octet (Cat (Ch 46 46)
        dec_octet)))), Cat (Ch 32 32) (Cat port ha_end)], [Rep 0 3 HEXDIG, Cat (Ch 32 32) (Cat
        port ha_end)]], [], [[Rep 0 3 HEXDIG, Ch 58 58, Rep 2 2 h16_colon, ls32, Ch 32 32], [Rep 0
        3 HEXDIG, Ch 58 58, h16_colon, ls32, Ch 32 32], [Rep 0 3 HEXDIG, Ch 58 58, ls32, Ch 32
        32], [Rep 0 3 HEXDIG, Cat (Ch 58 58) h16, Ch 32 32], [Cat (Ch 46 46) (Cat dec_octet (Cat
        (Ch 46 46) (Cat dec_octet (Cat (Ch 46 46) dec_octet)))), Ch 32 32], [DIGIT, Cat (Ch 46 46)
        (Cat dec_octet (Cat (Ch 46 46) (Cat dec_octet (Cat (Ch 46 46) dec_octet)))), Ch 32 32],
        [Rep 2 2 DIGIT, Cat (Ch 46 46) (Cat dec_octet (Cat (Ch 46 46) (Cat dec_octet (Cat (Ch 46
        46) dec_octet)))), Ch 32 32], [Rep 0 3 HEXDIG, Ch 32 32]]]])
      else
      if s = 162 then ([-128, 32, 33, 46, 47, 48, 58, 59, 65, 71, 97, 103], [[[], [], [[Rep 0 2
        HEXDIG, Ch 58 58, Rep 2 2 h16_colon, ls32, Cat (Ch 32 32) port], [Rep 0 2 HEXDIG, Ch 58
        58, h16_colon, ls32, Cat (Ch 32 32) port], [Rep 0 2 HEXDIG, Ch 58 58, ls32, Cat (Ch 32 32)
        port], [Rep 0 2 HEXDIG, Cat (Ch 58 58) h16, Cat (Ch 32 32) port], [Cat (Ch 46 46) (Cat
        dec_octet (Cat (Ch 46 46) (Cat dec_octet (Cat (Ch 46 46) dec_octet)))), Cat (Ch 32 32)
        port], [DIGIT, Cat (Ch 46 46) (Cat dec_octet (Cat (Ch 46 46) (Cat dec_octet (Cat (Ch 46
        46) dec_octet)))), Cat (Ch 32 32) port], [Rep 0 2 HEXDIG, Cat (Ch 32 32) port]], [[Rep 0 2
        HEXDIG, Ch 58 58, Rep 2 2 h16_colon, ls32, Cat (Ch 32 32) (Cat port ha_end)], [Rep 0 2
        HEXDIG, Ch 58 58, h16_colon, ls32, Cat (Ch 32 32) (Cat port ha_end)], [Rep 0 2 HEXDIG, Ch
        58 58, ls32, Cat (Ch 32 32) (Cat port ha_end)], [Rep 0 2 HEXDIG, Cat (Ch 58 58) h16, Cat
        (Ch 32 32) (Cat port ha_end)], [Cat (Ch 46 46) (Cat dec_octet (Cat (Ch 46 46) (Cat
        dec_octet (Cat (Ch 46 46) dec_octet)))), Cat (Ch 32 32) (Cat port ha_end)], [DIGIT, Cat
        (Ch 46 46) (Cat dec_octet (Cat (Ch 46 46) (Cat dec_octet (Cat (Ch 46 46) dec_octet)))),
        Cat (Ch 32 32) (Cat port ha_end)], [Rep 0 2 HEXDIG, Cat (Ch 32 32) (Cat port ha_end)]],
        [], [[Rep 0 2 HEXDIG, Ch 58 58, Rep 2 2 h16_colon, ls32, Ch 32 32], [Rep 0 2 HEXDIG, Ch 58
        58, h16_colon, ls32, Ch 32 32], [Rep 0 2 HEXDIG, Ch 58 58, ls32, Ch 32 32], [Rep 0 2
        HEXDIG, Cat (Ch 58 58) h16, Ch 32 32], [Cat (Ch 46 46) (Cat dec_octet (Cat (Ch 46 46) (Cat
        dec_octet (Cat (Ch 46 46) dec_octet)))), Ch 32 32], [DIGIT, Cat (Ch 46 46) (Cat dec_octet
        (Cat (Ch 46 46) (Cat dec_octet (Cat (Ch 46 46) dec_octet)))), Ch 32 32], [Rep 0 2 HEXDIG,
        Ch 32 32]]]])
      else
      if s = 163 then ([-128, 32, 33, 46, 47, 48, 58, 59, 65, 71, 97, 103], [[[], [], [[Rep 0 1
        HEXDIG, Ch 58 58, Rep 2 2 h16_colon, ls32, Cat (Ch 32 32) port], [Rep 0 1 HEXDIG, Ch 58
        58, h16_colon, ls32, Cat (Ch 32 32) port], [Rep 0 1 HEXDIG, Ch 58 58, ls32, Cat (Ch 32 32)
        port], [Rep 0 1 HEXDIG, Cat (Ch 58 58) h16, Cat (Ch 32 32) port], [Cat (Ch 46 46) (Cat
        dec_octet (Cat (Ch 46 46) (Cat dec_octet (Cat (Ch 46 46) dec_octet)))), Cat (Ch 32 32)
        port], [Rep 0 1 HEXDIG, Cat (Ch 32 32) port]], [[Rep 0 1 HEXDIG, Ch 58 58, Rep 2 2
        h16_colon, ls32, Cat (Ch 32 32) (Cat port ha_end)], [Rep 0 1 HEXDIG, Ch 58 58, h16_colon,
        ls32, Cat (Ch 32 32) (Cat port ha_end)], [Rep 0 1 HEXDIG, Ch 58 58, ls32, Cat (Ch 32 32)
        (Cat port ha_end)], [Rep 0 1 HEXDIG, Cat (Ch 58 58) h16, Cat (Ch 32 32) (Cat port
        ha_end)], [Cat (Ch 46 46) (Cat dec_octet (Cat (Ch 46 46) (Cat dec_octet (Cat (Ch 46 46)
        dec_octet)))), Cat (Ch 32 32) (Cat port ha_end)], [Rep 0 1 HEXDIG, Cat (Ch 32 32) (Cat
        port ha_end)]], [], [[Rep 0 1 HEXDIG, Ch 58 58, Rep 2 2 h16_colon, ls32, Ch 32 32], [Rep 0
        1 HEXDIG, Ch 58 58, h16_colon, ls32, Ch 32 32], [Rep 0 1 HEXDIG, Ch 58 58, ls32, Ch 32
        32], [Rep 0 1 HEXDIG, Cat (Ch 58 58) h16, Ch 32 32], [Cat (Ch 46 46) (Cat dec_octet (Cat
        (Ch 46 46) (Cat dec_octet (Cat (Ch 46 46) dec_octet)))), Ch 32 32], [Rep 0 1 HEXDIG, Ch 32
        32]]]])
      else
      if s = 164 then ([-128, 32, 33, 46, 47, 48, 53, 54, 58, 59, 65, 71, 97, 103], [[[], [],
        [[Rep 0 3 HEXDIG, Ch 58 58, Rep 2 2 h16_colon, ls32, Cat (Ch 32 32) port], [Rep 0 3
        HEXDIG, Ch 58 58, h16_colon, ls32, Cat (Ch 32 32) port], [Rep 0 3 HEXDIG, Ch 58 58, ls32,
        Cat (Ch 32 32) port], [Rep 0 3 HEXDIG, Cat (Ch 58 58) h16, Cat (Ch 32 32) port], [Cat (Ch
        46 46) (Cat dec_octet (Cat (Ch 46 46) (Cat dec_octet (Cat (Ch 46 46) dec_octet)))), Cat
        (Ch 32 32) port], [DIGIT, Cat (Ch 46 46) (Cat dec_octet (Cat (Ch 46 46) (Cat dec_octet
        (Cat (Ch 46 46) dec_octet)))), Cat (Ch 32 32) port], [Cat (Ch 48 52) DIGIT, Cat (Ch 46 46)
        (Cat dec_octet (Cat (Ch 46 46) (Cat dec_octet (Cat (Ch 46 46) dec_octet)))), Cat (Ch 32
        32) port], [Cat (Ch 53 53) (Ch 48 53), Cat (Ch 46 46) (Cat dec_octet (Cat (Ch 46 46) (Cat
        dec_octet (Cat (Ch 46 46) dec_octet)))), Cat (Ch 32 32) port], [Rep 0 3 HEXDIG, Cat (Ch 32
        32) port]], [[Rep 0 3 HEXDIG, Ch 58 58, Rep 2 2 h16_colon, ls32, Cat (Ch 32 32) (Cat port
        ha_end)], [Rep 0 3 HEXDIG, Ch 58 58, h16_colon, ls32, Cat (Ch 32 32) (Cat port ha_end)],
        [Rep 0 3 HEXDIG, Ch 58 58, ls32, Cat (Ch 32 32) (Cat port ha_end)], [Rep 0 3 HEXDIG, Cat
        (Ch 58 58) h16, Cat (Ch 32 32) (Cat port ha_end)], [Cat (Ch 46 46) (Cat dec_octet (Cat (Ch
        46 46) (Cat dec_octet (Cat (Ch 46 46) dec_octet)))), Cat (Ch 32 32) (Cat port ha_end)],
        [DIGIT, Cat (Ch 46 46) (Cat dec_octet (Cat (Ch 46 46) (Cat dec_octet (Cat (Ch 46 46)
        dec_octet)))), Cat (Ch 32 32) (Cat port ha_end)], [Cat (Ch 48 52) DIGIT, Cat (Ch 46 46)
        (Cat dec_octet (Cat (Ch 46 46) (Cat dec_octet (Cat (Ch 46 46) dec_octet)))), Cat (Ch 32
        32) (Cat port ha_end)], [Cat (Ch 53 53) (Ch 48 53), Cat (Ch 46 46) (Cat dec_octet (Cat (Ch
        46 46) (Cat dec_octet (Cat (Ch 46 46) dec_octet)))), Cat (Ch 32 32) (Cat port ha_end)],
        [Rep 0 3 HEXDIG, Cat (Ch 32 32) (Cat port ha_end)]], [], [[Rep 0 3 HEXDIG, Ch 58 58, Rep 2
        2 h16_colon, ls32, Ch 32 32], [Rep 0 3 HEXDIG, Ch 58 58, h16_colon, ls32, Ch 32 32], [Rep
        0 3 HEXDIG, Ch 58 58, ls32, Ch 32 32], [Rep 0 3 HEXDIG, Cat (Ch 58 58) h16, Ch 32 32],
        [Cat (Ch 46 46) (Cat dec_octet (Cat (Ch 46 46) (Cat dec_octet (Cat (Ch 46 46)
        dec_octet)))), Ch 32 32], [DIGIT, Cat (Ch 46 46) (Cat dec_octet (Cat (Ch 46 46) (Cat
        dec_octet (Cat (Ch 46 46) dec_octet)))), Ch 32 32], [Cat (Ch 48 52) DIGIT, Cat (Ch 46 46)
        (Cat dec_octet (Cat (Ch 46 46) (Cat dec_octet (Cat (Ch 46 46) dec_octet)))), Ch 32 32],
        [Cat (Ch 53 53) (Ch 48 53), Cat (Ch 46 46) (Cat dec_octet (Cat (Ch 46 46) (Cat dec_octet
        (Cat (Ch 46 46) dec_octet)))), Ch 32 32], [Rep 0 3 HEXDIG, Ch 32 32]]]])
      else
      if s = 165 then ([-128, 32, 33, 46, 47, 48, 54, 58, 59, 65, 71, 97, 103], [[[], [], [[Rep 0
        2 HEXDIG, Ch 58 58, Rep 2 2 h16_colon, ls32, Cat (Ch 32 32) port], [Rep 0 2 HEXDIG, Ch 58
        58, h16_colon, ls32, Cat (Ch 32 32) port], [Rep 0 2 HEXDIG, Ch 58 58, ls32, Cat (Ch 32 32)
        port], [Rep 0 2 HEXDIG, Cat (Ch 58 58) h16, Cat (Ch 32 32) port], [Cat (Ch 46 46) (Cat
        dec_octet (Cat (Ch 46 46) (Cat dec_octet (Cat (Ch 46 46) dec_octet)))), Cat (Ch 32 32)
        port], [Ch 48 53, Cat (Ch 46 46) (Cat dec_octet (Cat (Ch 46 46) (Cat dec_octet (Cat (Ch 46
        46) dec_octet)))), Cat (Ch 32 32) port], [Rep 0 2 HEXDIG, Cat (Ch 32 32) port]], [[Rep 0 2
        HEXDIG, Ch 58 58, Rep 2 2 h16_colon, ls32, Cat (Ch 32 32) (Cat port ha_end)], [Rep 0 2
        HEXDIG, Ch 58 58, h16_colon, ls32, Cat (Ch 32 32) (Cat port ha_end)], [Rep 0 2 HEXDIG, Ch
        58 58, ls32, Cat (Ch 32 32) (Cat port ha_end)], [Rep 0 2 HEXDIG, Cat (Ch 58 58) h16, Cat
        (Ch 32 32) (Cat port ha_end)], [Cat (Ch 46 46) (Cat dec_octet (Cat (Ch 46 46) (Cat
        dec_octet (Cat (Ch 46 46) dec_octet)))), Cat (Ch 32 32) (Cat port ha_end)], [Ch 48 53, Cat
        (Ch 46 46) (Cat dec_octet (Cat (Ch 46 46) (Cat dec_octet (Cat (Ch 46 46) dec_octet)))),
        Cat (Ch 32 32) (Cat port ha_end)], [Rep 0 2 HEXDIG, Cat (Ch 32 32) (Cat port ha_end)]],
        [], [[Rep 0 2 HEXDIG, Ch 58 58, Rep 2 2 h16_colon, ls32, Ch 32 32], [Rep 0 2 HEXDIG, Ch 58
        58, h16_colon, ls32, Ch 32 32], [Rep 0 2 HEXDIG, Ch 58 58, ls32, Ch 32 32], [Rep 0 2
        HEXDIG, Cat (Ch 58 58) h16, Ch 32 32], [Cat (Ch 46 46) (Cat dec_octet (Cat (Ch 46 46) (Cat
        dec_octet (Cat (Ch 46 46) dec_octet)))), Ch 32 32], [Ch 48 53, Cat (Ch 46 46) (Cat
        dec_octet (Cat (Ch 46 46) (Cat dec_octet (Cat (Ch 46 46) dec_octet)))), Ch 32 32], [Rep 0
        2 HEXDIG, Ch 32 32]]]])
      else
      if s = 166 then ([-128, 32, 33, 46, 47, 48, 58, 59, 65, 71, 97, 103], [[[], [], [[Rep 0 2
        HEXDIG, Ch 58 58, Rep 2 2 h16_colon, ls32, Cat (Ch 32 32) port], [Rep 0 2 HEXDIG, Ch 58
        58, h16_colon, ls32, Cat (Ch 32 32) port], [Rep 0 2 HEXDIG, Ch 58 58, ls32, Cat (Ch 32 32)
        port], [Rep 0 2 HEXDIG, Cat (Ch 58 58) h16, Cat (Ch 32 32) port], [Cat (Ch 46 46) (Cat
        dec_octet (Cat (Ch 46 46) (Cat dec_octet (Cat (Ch 46 46) dec_octet)))), Cat (Ch 32 32)
        port], [Rep 0 2 HEXDIG, Cat (Ch 32 32) port]], [[Rep 0 2 HEXDIG, Ch 58 58, Rep 2 2
        h16_colon, ls32, Cat (Ch 32 32) (Cat port ha_end)], [Rep 0 2 HEXDIG, Ch 58 58, h16_colon,
        ls32, Cat (Ch 32 32) (Cat port ha_end)], [Rep 0 2 HEXDIG, Ch 58 58, ls32, Cat (Ch 32 32)
        (Cat port ha_end)], [Rep 0 2 HEXDIG, Cat (Ch 58 58) h16, Cat (Ch 32 32) (Cat port
        ha_end)], [Cat (Ch 46 46) (Cat dec_octet (Cat (Ch 46 46) (Cat dec_octet (Cat (Ch 46 46)
        dec_octet)))), Cat (Ch 32 32) (Cat port ha_end)], [Rep 0 2 HEXDIG, Cat (Ch 32 32) (Cat
        port ha_end)]], [], [[Rep 0 2 HEXDIG, Ch 58 58, Rep 2 2 h16_colon, ls32, Ch 32 32], [Rep 0
        2 HEXDIG, Ch 58 58, h16_colon, ls32, Ch 32 32], [Rep 0 2 HEXDIG, Ch 58 58, ls32, Ch 32
        32], [Rep 0 2 HEXDIG, Cat (Ch 58 58) h16, Ch 32 32], [Cat (Ch 46 46) (Cat dec_octet (Cat
        (Ch 46 46) (Cat dec_octet (Cat (Ch 46 46) dec_octet)))), Ch 32 32], [Rep 0 2 HEXDIG, Ch 32
        32]]]])
      else
      if s = 167 then ([-128, 32, 33, 46, 47, 48, 58, 59, 65, 71, 97, 103], [[[], [], [[Rep 0 3
        HEXDIG, Ch 58 58, Rep 2 2 h16_colon, ls32, Cat (Ch 32 32) port], [Rep 0 3 HEXDIG, Ch 58
        58, h16_colon, ls32, Cat (Ch 32 32) port], [Rep 0 3 HEXDIG, Ch 58 58, ls32, Cat (Ch 32 32)
        port], [Rep 0 3 HEXDIG, Cat (Ch 58 58) h16, Cat (Ch 32 32) port], [Cat (Ch 46 46) (Cat
        dec_octet (Cat (Ch 46 46) (Cat dec_octet (Cat (Ch 46 46) dec_octet)))), Cat (Ch 32 32)
        port], [DIGIT, Cat (Ch 46 46) (Cat dec_octet (Cat (Ch 46 46) (Cat dec_octet (Cat (Ch 46
        46) dec_octet)))), Cat (Ch 32 32) port], [Rep 0 3 HEXDIG, Cat (Ch 32 32) port]], [[Rep 0 3
        HEXDIG, Ch 58 58, Rep 2 2 h16_colon, ls32, Cat (Ch 32 32) (Cat port ha_end)], [Rep 0 3
        HEXDIG, Ch 58 58, h16_colon, ls32, Cat (Ch 32 32) (Cat port ha_end)], [Rep 0 3 HEXDIG, Ch
        58 58, ls32, Cat (Ch 32 32) (Cat port ha_end)], [Rep 0 3 HEXDIG, Cat (Ch 58 58) h16, Cat
        (Ch 32 32) (Cat port ha_end)], [Cat (Ch 46 46) (Cat dec_octet (Cat (Ch 46 46) (Cat
        dec_octet (Cat (Ch 46 46) dec_octet)))), Cat (Ch 32 32) (Cat port ha_end)], [DIGIT, Cat
        (Ch 46 46) (Cat dec_octet (Cat (Ch 46 46) (Cat dec_octet (Cat (Ch 46 46) dec_octet)))),
        Cat (Ch 32 32) (Cat port ha_end)], [Rep 0 3 HEXDIG, Cat (Ch 32 32) (Cat port ha_end)]],
        [], [[Rep 0 3 HEXDIG, Ch 58 58, Rep 2 2 h16_colon, ls32, Ch 32 32], [Rep 0 3 HEXDIG, Ch 58
        58, h16_colon, ls32, Ch 32 32], [Rep 0 3 HEXDIG, Ch 58 58, ls32, Ch 32 32], [Rep 0 3
        HEXDIG, Cat (Ch 58 58) h16, Ch 32 32], [Cat (Ch 46 46) (Cat dec_octet (Cat (Ch 46 46) (Cat
        dec_octet (Cat (Ch 46 46) dec_octet)))), Ch 32 32], [DIGIT, Cat (Ch 46 46) (Cat dec_octet
        (Cat (Ch 46 46) (Cat dec_octet (Cat (Ch 46 46) dec_octet)))), Ch 32 32], [Rep 0 3 HEXDIG,
        Ch 32 32]]]])
      else
      ([-128, 32, 33, 48, 58, 59, 65, 71, 97, 103], [[[], [], [[Rep 0 3 HEXDIG, Ch 58 58, Rep 2 2
        h16_colon, ls32, Cat (Ch 32 32) port], [Rep 0 3 HEXDIG, Ch 58 58, h16_colon, ls32, Cat (Ch
        32 32) port], [Rep 0 3 HEXDIG, Ch 58 58, ls32, Cat (Ch 32 32) port], [Rep 0 3 HEXDIG, Cat
        (Ch 58 58) h16, Cat (Ch 32 32) port], [Rep 0 3 HEXDIG, Cat (Ch 32 32) port]], [[Rep 0 3
        HEXDIG, Ch 58 58, Rep 2 2 h16_colon, ls32, Cat (Ch 32 32) (Cat port ha_end)], [Rep 0 3
        HEXDIG, Ch 58 58, h16_colon, ls32, Cat (Ch 32 32) (Cat port ha_end)], [Rep 0 3 HEXDIG, Ch
        58 58, ls32, Cat (Ch 32 32) (Cat port ha_end)], [Rep 0 3 HEXDIG, Cat (Ch 58 58) h16, Cat
        (Ch 32 32) (Cat port ha_end)], [Rep 0 3 HEXDIG, Cat (Ch 32 32) (Cat port ha_end)]], [],
        [[Rep 0 3 HEXDIG, Ch 58 58, Rep 2 2 h16_colon, ls32, Ch 32 32], [Rep 0 3 HEXDIG, Ch 58 58,
        h16_colon, ls32, Ch 32 32], [Rep 0 3 HEXDIG, Ch 58 58, ls32, Ch 32 32], [Rep 0 3 HEXDIG,
        Cat (Ch 58 58) h16, Ch 32 32], [Rep 0 3 HEXDIG, Ch 32 32]]]]))"

definition ha_expects_22 :: certificate where
  "ha_expects_22 s =
     (if s = 169 then ([-128, 32, 33, 48, 49, 50, 51, 58, 65, 71, 97, 103], [[[], [], [[Cat (Rep 4
        4 h16_colon) ls32, Cat (Ch 32 32) port], [Cat (Rep 3 3 h16_colon) ls32, Cat (Ch 32 32)
        port], [Cat (Rep 2 2 h16_colon) ls32, Cat (Ch 32 32) port], [Cat h16_colon ls32, Cat (Ch
        32 32) port], [ls32, Cat (Ch 32 32) port], [h16, Cat (Ch 32 32) port], [Cat (Ch 32 32)
        port]], [[Cat (Rep 4 4 h16_colon) ls32, Cat (Ch 32 32) (Cat port ha_end)], [Cat (Rep 3 3
        h16_colon) ls32, Cat (Ch 32 32) (Cat port ha_end)], [Cat (Rep 2 2 h16_colon) ls32, Cat (Ch
        32 32) (Cat port ha_end)], [Cat h16_colon ls32, Cat (Ch 32 32) (Cat port ha_end)], [ls32,
        Cat (Ch 32 32) (Cat port ha_end)], [h16, Cat (Ch 32 32) (Cat port ha_end)], [Cat (Ch 32
        32) (Cat port ha_end)]], [], [[Cat (Rep 4 4 h16_colon) ls32, Ch 32 32], [Cat (Rep 3 3
        h16_colon) ls32, Ch 32 32], [Cat (Rep 2 2 h16_colon) ls32, Ch 32 32], [Cat h16_colon ls32,
        Ch 32 32], [ls32, Ch 32 32], [h16, Ch 32 32], [Ch 32 32]]]])
      else
      if s = 170 then ([-128, 32, 33, 46, 47, 48, 58, 59, 65, 71, 97, 103], [[[], [], [[Rep 0 3
        HEXDIG, Ch 58 58, Rep 3 3 h16_colon, ls32, Cat (Ch 32 32) port], [Rep 0 3 HEXDIG, Ch 58
        58, Rep 2 2 h16_colon, ls32, Cat (Ch 32 32) port], [Rep 0 3 HEXDIG, Ch 58 58, h16_colon,
        ls32, Cat (Ch 32 32) port], [Rep 0 3 HEXDIG, Ch 58 58, ls32, Cat (Ch 32 32) port], [Rep 0
        3 HEXDIG, Cat (Ch 58 58) h16, Cat (Ch 32 32) port], [Cat (Ch 46 46) (Cat dec_octet (Cat
        (Ch 46 46) (Cat dec_octet (Cat (Ch 46 46) dec_octet)))), Cat (Ch 32 32) port], [Rep 0 3
        HEXDIG, Cat (Ch 32 32) port]], [[Rep 0 3 HEXDIG, Ch 58 58, Rep 3 3 h16_colon, ls32, Cat
        (Ch 32 32) (Cat port ha_end)], [Rep 0 3 HEXDIG, Ch 58 58, Rep 2 2 h16_colon, ls32, Cat (Ch
        32 32) (Cat port ha_end)], [Rep 0 3 HEXDIG, Ch 58 58, h16_colon, ls32, Cat (Ch 32 32) (Cat
        port ha_end)], [Rep 0 3 HEXDIG, Ch 58 58, ls32, Cat (Ch 32 32) (Cat port ha_end)], [Rep 0
        3 HEXDIG, Cat (Ch 58 58) h16, Cat (Ch 32 32) (Cat port ha_end)], [Cat (Ch 46 46) (Cat
        dec_octet (Cat (Ch 46 46) (Cat dec_octet (Cat (Ch 46 46) dec_octet)))), Cat (Ch 32 32)
        (Cat port ha_end)], [Rep 0 3 HEXDIG, Cat (Ch 32 32) (Cat port ha_end)]], [], [[Rep 0 3
        HEXDIG, Ch 58 58, Rep 3 3 h16_colon, ls32, Ch 32 32], [Rep 0 3 HEXDIG, Ch 58 58, Rep 2 2
        h16_colon, ls32, Ch 32 32], [Rep 0 3 HEXDIG, Ch 58 58, h16_colon, ls32, Ch 32 32], [Rep 0
        3 HEXDIG, Ch 58 58, ls32, Ch 32 32], [Rep 0 3 HEXDIG, Cat (Ch 58 58) h16, Ch 32 32], [Cat
        (Ch 46 46) (Cat dec_octet (Cat (Ch 46 46) (Cat dec_octet (Cat (Ch 46 46) dec_octet)))), Ch
        32 32], [Rep 0 3 HEXDIG, Ch 32 32]]]])
      else
      if s = 171 then ([-128, 32, 33, 48, 58, 59, 65, 71, 97, 103], [[[], [], [[Rep 0 2 HEXDIG, Ch
        58 58, Rep 3 3 h16_colon, ls32, Cat (Ch 32 32) port], [Rep 0 2 HEXDIG, Ch 58 58, Rep 2 2
        h16_colon, ls32, Cat (Ch 32 32) port], [Rep 0 2 HEXDIG, Ch 58 58, h16_colon, ls32, Cat (Ch
        32 32) port], [Rep 0 2 HEXDIG, Ch 58 58, ls32, Cat (Ch 32 32) port], [Rep 0 2 HEXDIG, Cat
        (Ch 58 58) h16, Cat (Ch 32 32) port], [Rep 0 2 HEXDIG, Cat (Ch 32 32) port]], [[Rep 0 2
        HEXDIG, Ch 58 58, Rep 3 3 h16_colon, ls32, Cat (Ch 32 32) (Cat port ha_end)], [Rep 0 2
        HEXDIG, Ch 58 58, Rep 2 2 h16_colon, ls32, Cat (Ch 32 32) (Cat port ha_end)], [Rep 0 2
        HEXDIG, Ch 58 58, h16_colon, ls32, Cat (Ch 32 32) (Cat port ha_end)], [Rep 0 2 HEXDIG, Ch
        58 58, ls32, Cat (Ch 32 32) (Cat port ha_end)], [Rep 0 2 HEXDIG, Cat (Ch 58 58) h16, Cat
        (Ch 32 32) (Cat port ha_end)], [Rep 0 2 HEXDIG, Cat (Ch 32 32) (Cat port ha_end)]], [],
        [[Rep 0 2 HEXDIG, Ch 58 58, Rep 3 3 h16_colon, ls32, Ch 32 32], [Rep 0 2 HEXDIG, Ch 58 58,
        Rep 2 2 h16_colon, ls32, Ch 32 32], [Rep 0 2 HEXDIG, Ch 58 58, h16_colon, ls32, Ch 32 32],
        [Rep 0 2 HEXDIG, Ch 58 58, ls32, Ch 32 32], [Rep 0 2 HEXDIG, Cat (Ch 58 58) h16, Ch 32
        32], [Rep 0 2 HEXDIG, Ch 32 32]]]])
      else
      if s = 172 then ([-128, 32, 33, 48, 58, 59, 65, 71, 97, 103], [[[], [], [[Rep 0 1 HEXDIG, Ch
        58 58, Rep 3 3 h16_colon, ls32, Cat (Ch 32 32) port], [Rep 0 1 HEXDIG, Ch 58 58, Rep 2 2
        h16_colon, ls32, Cat (Ch 32 32) port], [Rep 0 1 HEXDIG, Ch 58 58, h16_colon, ls32, Cat (Ch
        32 32) port], [Rep 0 1 HEXDIG, Ch 58 58, ls32, Cat (Ch 32 32) port], [Rep 0 1 HEXDIG, Cat
        (Ch 58 58) h16, Cat (Ch 32 32) port], [Rep 0 1 HEXDIG, Cat (Ch 32 32) port]], [[Rep 0 1
        HEXDIG, Ch 58 58, Rep 3 3 h16_colon, ls32, Cat (Ch 32 32) (Cat port ha_end)], [Rep 0 1
        HEXDIG, Ch 58 58, Rep 2 2 h16_colon, ls32, Cat (Ch 32 32) (Cat port ha_end)], [Rep 0 1
        HEXDIG, Ch 58 58, h16_colon, ls32, Cat (Ch 32 32) (Cat port ha_end)], [Rep 0 1 HEXDIG, Ch
        58 58, ls32, Cat (Ch 32 32) (Cat port ha_end)], [Rep 0 1 HEXDIG, Cat (Ch 58 58) h16, Cat
        (Ch 32 32) (Cat port ha_end)], [Rep 0 1 HEXDIG, Cat (Ch 32 32) (Cat port ha_end)]], [],
        [[Rep 0 1 HEXDIG, Ch 58 58, Rep 3 3 h16_colon, ls32, Ch 32 32], [Rep 0 1 HEXDIG, Ch 58 58,
        Rep 2 2 h16_colon, ls32, Ch 32 32], [Rep 0 1 HEXDIG, Ch 58 58, h16_colon, ls32, Ch 32 32],
        [Rep 0 1 HEXDIG, Ch 58 58, ls32, Ch 32 32], [Rep 0 1 HEXDIG, Cat (Ch 58 58) h16, Ch 32
        32], [Rep 0 1 HEXDIG, Ch 32 32]]]])
      else
      if s = 173 then ([-128, 32, 33, 58, 59], [[[], [], [[Ch 58 58, Rep 3 3 h16_colon, ls32, Cat
        (Ch 32 32) port], [Ch 58 58, Rep 2 2 h16_colon, ls32, Cat (Ch 32 32) port], [Ch 58 58,
        h16_colon, ls32, Cat (Ch 32 32) port], [Ch 58 58, ls32, Cat (Ch 32 32) port], [Cat (Ch 58
        58) h16, Cat (Ch 32 32) port], [Cat (Ch 32 32) port]], [[Ch 58 58, Rep 3 3 h16_colon,
        ls32, Cat (Ch 32 32) (Cat port ha_end)], [Ch 58 58, Rep 2 2 h16_colon, ls32, Cat (Ch 32
        32) (Cat port ha_end)], [Ch 58 58, h16_colon, ls32, Cat (Ch 32 32) (Cat port ha_end)], [Ch
        58 58, ls32, Cat (Ch 32 32) (Cat port ha_end)], [Cat (Ch 58 58) h16, Cat (Ch 32 32) (Cat
        port ha_end)], [Cat (Ch 32 32) (Cat port ha_end)]], [], [[Ch 58 58, Rep 3 3 h16_colon,
        ls32, Ch 32 32], [Ch 58 58, Rep 2 2 h16_colon, ls32, Ch 32 32], [Ch 58 58, h16_colon,
        ls32, Ch 32 32], [Ch 58 58, ls32, Ch 32 32], [Cat (Ch 58 58) h16, Ch 32 32], [Ch 32
        32]]]])
      else
      if s = 174 then ([-128, 48, 49, 50, 51, 58, 65, 71, 97, 103], [[[], [], [[Rep 3 3 h16_colon,
        ls32, Cat (Ch 32 32) port], [Rep 2 2 h16_colon, ls32, Cat (Ch 32 32) port], [h16_colon,
        ls32, Cat (Ch 32 32) port], [ls32, Cat (Ch 32 32) port], [h16, Cat (Ch 32 32) port]],
        [[Rep 3 3 h16_colon, ls32, Cat (Ch 32 32) (Cat port ha_end)], [Rep 2 2 h16_colon, ls32,
        Cat (Ch 32 32) (Cat port ha_end)], [h16_colon, ls32, Cat (Ch 32 32) (Cat port ha_end)],
        [ls32, Cat (Ch 32 32) (Cat port ha_end)], [h16, Cat (Ch 32 32) (Cat port ha_end)]], [],
        [[Rep 3 3 h16_colon, ls32, Ch 32 32], [Rep 2 2 h16_colon, ls32, Ch 32 32], [h16_colon,
        ls32, Ch 32 32], [ls32, Ch 32 32], [h16, Ch 32 32]]]])
      else
      if s = 175 then ([-128, 32, 33, 46, 47, 48, 58, 59, 65, 71, 97, 103], [[[], [], [[Rep 0 3
        HEXDIG, Ch 58 58, Rep 3 3 h16_colon, ls32, Cat (Ch 32 32) port], [Rep 0 3 HEXDIG, Ch 58
        58, Rep 2 2 h16_colon, ls32, Cat (Ch 32 32) port], [Rep 0 3 HEXDIG, Ch 58 58, h16_colon,
        ls32, Cat (Ch 32 32) port], [Rep 0 3 HEXDIG, Ch 58 58, ls32, Cat (Ch 32 32) port], [Rep 0
        3 HEXDIG, Cat (Ch 58 58) h16, Cat (Ch 32 32) port], [Cat (Ch 46 46) (Cat dec_octet (Cat
        (Ch 46 46) (Cat dec_octet (Cat (Ch 46 46) dec_octet)))), Cat (Ch 32 32) port], [DIGIT, Cat
        (Ch 46 46) (Cat dec_octet (Cat (Ch 46 46) (Cat dec_octet (Cat (Ch 46 46) dec_octet)))),
        Cat (Ch 32 32) port], [Rep 2 2 DIGIT, Cat (Ch 46 46) (Cat dec_octet (Cat (Ch 46 46) (Cat
        dec_octet (Cat (Ch 46 46) dec_octet)))), Cat (Ch 32 32) port], [Rep 0 3 HEXDIG, Cat (Ch 32
        32) port]], [[Rep 0 3 HEXDIG, Ch 58 58, Rep 3 3 h16_colon, ls32, Cat (Ch 32 32) (Cat port
        ha_end)], [Rep 0 3 HEXDIG, Ch 58 58, Rep 2 2 h16_colon, ls32, Cat (Ch 32 32) (Cat port
        ha_end)], [Rep 0 3 HEXDIG, Ch 58 58, h16_colon, ls32, Cat (Ch 32 32) (Cat port ha_end)],
        [Rep 0 3 HEXDIG, Ch 58 58, ls32, Cat (Ch 32 32) (Cat port ha_end)], [Rep 0 3 HEXDIG, Cat
        (Ch 58 58) h16, Cat (Ch 32 32) (Cat port ha_end)], [Cat (Ch 46 46) (Cat dec_octet (Cat (Ch
        46 46) (Cat dec_octet (Cat (Ch 46 46) dec_octet)))), Cat (Ch 32 32) (Cat port ha_end)],
        [DIGIT, Cat (Ch 46 46) (Cat dec_octet (Cat (Ch 46 46) (Cat dec_octet (Cat (Ch 46 46)
        dec_octet)))), Cat (Ch 32 32) (Cat port ha_end)], [Rep 2 2 DIGIT, Cat (Ch 46 46) (Cat
        dec_octet (Cat (Ch 46 46) (Cat dec_octet (Cat (Ch 46 46) dec_octet)))), Cat (Ch 32 32)
        (Cat port ha_end)], [Rep 0 3 HEXDIG, Cat (Ch 32 32) (Cat port ha_end)]], [], [[Rep 0 3
        HEXDIG, Ch 58 58, Rep 3 3 h16_colon, ls32, Ch 32 32], [Rep 0 3 HEXDIG, Ch 58 58, Rep 2 2
        h16_colon, ls32, Ch 32 32], [Rep 0 3 HEXDIG, Ch 58 58, h16_colon, ls32, Ch 32 32], [Rep 0
        3 HEXDIG, Ch 58 58, ls32, Ch 32 32], [Rep 0 3 HEXDIG, Cat (Ch 58 58) h16, Ch 32 32], [Cat
        (Ch 46 46) (Cat dec_octet (Cat (Ch 46 46) (Cat dec_octet (Cat (Ch 46 46) dec_octet)))), Ch
        32 32], [DIGIT, Cat (Ch 46 46) (Cat dec_octet (Cat (Ch 46 46) (Cat dec_octet (Cat (Ch 46
        46) dec_octet)))), Ch 32 32], [Rep 2 2 DIGIT, Cat (Ch 46 46) (Cat dec_octet (Cat (Ch 46
        46) (Cat dec_octet (Cat (Ch 46 46) dec_octet)))), Ch 32 32], [Rep 0 3 HEXDIG, Ch 32
        32]]]])
      else
      ([-128, 32, 33, 46, 47, 48, 58, 59, 65, 71, 97, 103], [[[], [], [[Rep 0 2 HEXDIG, Ch 58 58,
        Rep 3 3 h16_colon, ls32, Cat (Ch 32 32) port], [Rep 0 2 HEXDIG, Ch 58 58, Rep 2 2
        h16_colon, ls32, Cat (Ch 32 32) port], [Rep 0 2 HEXDIG, Ch 58 58, h16_colon, ls32, Cat (Ch
        32 32) port], [Rep 0 2 HEXDIG, Ch 58 58, ls32, Cat (Ch 32 32) port], [Rep 0 2 HEXDIG, Cat
        (Ch 58 58) h16, Cat (Ch 32 32) port], [Cat (Ch 46 46) (Cat dec_octet (Cat (Ch 46 46) (Cat
        dec_octet (Cat (Ch 46 46) dec_octet)))), Cat (Ch 32 32) port], [DIGIT, Cat (Ch 46 46) (Cat
        dec_octet (Cat (Ch 46 46) (Cat dec_octet (Cat (Ch 46 46) dec_octet)))), Cat (Ch 32 32)
        port], [Rep 0 2 HEXDIG, Cat (Ch 32 32) port]], [[Rep 0 2 HEXDIG, Ch 58 58, Rep 3 3
        h16_colon, ls32, Cat (Ch 32 32) (Cat port ha_end)], [Rep 0 2 HEXDIG, Ch 58 58, Rep 2 2
        h16_colon, ls32, Cat (Ch 32 32) (Cat port ha_end)], [Rep 0 2 HEXDIG, Ch 58 58, h16_colon,
        ls32, Cat (Ch 32 32) (Cat port ha_end)], [Rep 0 2 HEXDIG, Ch 58 58, ls32, Cat (Ch 32 32)
        (Cat port ha_end)], [Rep 0 2 HEXDIG, Cat (Ch 58 58) h16, Cat (Ch 32 32) (Cat port
        ha_end)], [Cat (Ch 46 46) (Cat dec_octet (Cat (Ch 46 46) (Cat dec_octet (Cat (Ch 46 46)
        dec_octet)))), Cat (Ch 32 32) (Cat port ha_end)], [DIGIT, Cat (Ch 46 46) (Cat dec_octet
        (Cat (Ch 46 46) (Cat dec_octet (Cat (Ch 46 46) dec_octet)))), Cat (Ch 32 32) (Cat port
        ha_end)], [Rep 0 2 HEXDIG, Cat (Ch 32 32) (Cat port ha_end)]], [], [[Rep 0 2 HEXDIG, Ch 58
        58, Rep 3 3 h16_colon, ls32, Ch 32 32], [Rep 0 2 HEXDIG, Ch 58 58, Rep 2 2 h16_colon,
        ls32, Ch 32 32], [Rep 0 2 HEXDIG, Ch 58 58, h16_colon, ls32, Ch 32 32], [Rep 0 2 HEXDIG,
        Ch 58 58, ls32, Ch 32 32], [Rep 0 2 HEXDIG, Cat (Ch 58 58) h16, Ch 32 32], [Cat (Ch 46 46)
        (Cat dec_octet (Cat (Ch 46 46) (Cat dec_octet (Cat (Ch 46 46) dec_octet)))), Ch 32 32],
        [DIGIT, Cat (Ch 46 46) (Cat dec_octet (Cat (Ch 46 46) (Cat dec_octet (Cat (Ch 46 46)
        dec_octet)))), Ch 32 32], [Rep 0 2 HEXDIG, Ch 32 32]]]]))"

definition ha_expects_23 :: certificate where
  "ha_expects_23 s =
     (if s = 177 then ([-128, 32, 33, 46, 47, 48, 58, 59, 65, 71, 97, 103], [[[], [], [[Rep 0 1
        HEXDIG, Ch 58 58, Rep 3 3 h16_colon, ls32, Cat (Ch 32 32) port], [Rep 0 1 HEXDIG, Ch 58
        58, Rep 2 2 h16_colon, ls32, Cat (Ch 32 32) port], [Rep 0 1 HEXDIG, Ch 58 58, h16_colon,
        ls32, Cat (Ch 32 32) port], [Rep 0 1 HEXDIG, Ch 58 58, ls32, Cat (Ch 32 32) port], [Rep 0
        1 HEXDIG, Cat (Ch 58 58) h16, Cat (Ch 32 32) port], [Cat (Ch 46 46) (Cat dec_octet (Cat
        (Ch 46 46) (Cat dec_octet (Cat (Ch 46 46) dec_octet)))), Cat (Ch 32 32) port], [Rep 0 1
        HEXDIG, Cat (Ch 32 32) port]], [[Rep 0 1 HEXDIG, Ch 58 58, Rep 3 3 h16_colon, ls32, Cat
        (Ch 32 32) (Cat port ha_end)], [Rep 0 1 HEXDIG, Ch 58 58, Rep 2 2 h16_colon, ls32, Cat (Ch
        32 32) (Cat port ha_end)], [Rep 0 1 HEXDIG, Ch 58 58, h16_colon, ls32, Cat (Ch 32 32) (Cat
        port ha_end)], [Rep 0 1 HEXDIG, Ch 58 58, ls32, Cat (Ch 32 32) (Cat port ha_end)], [Rep 0
        1 HEXDIG, Cat (Ch 58 58) h16, Cat (Ch 32 32) (Cat port ha_end)], [Cat (Ch 46 46) (Cat
        dec_octet (Cat (Ch 46 46) (Cat dec_octet (Cat (Ch 46 46) dec_octet)))), Cat (Ch 32 32)
        (Cat port ha_end)], [Rep 0 1 HEXDIG, Cat (Ch 32 32) (Cat port ha_end)]], [], [[Rep 0 1
        HEXDIG, Ch 58 58, Rep 3 3 h16_colon, ls32, Ch 32 32], [Rep 0 1 HEXDIG, Ch 58 58, Rep 2 2
        h16_colon, ls32, Ch 32 32], [Rep 0 1 HEXDIG, Ch 58 58, h16_colon, ls32, Ch 32 32], [Rep 0
        1 HEXDIG, Ch 58 58, ls32, Ch 32 32], [Rep 0 1 HEXDIG, Cat (Ch 58 58) h16, Ch 32 32], [Cat
        (Ch 46 46) (Cat dec_octet (Cat (Ch 46 46) (Cat dec_octet (Cat (Ch 46 46) dec_octet)))), Ch
        32 32], [Rep 0 1 HEXDIG, Ch 32 32]]]])
      else
      if s = 178 then ([-128, 32, 33, 46, 47, 48, 53, 54, 58, 59, 65, 71, 97, 103], [[[], [],
        [[Rep 0 3 HEXDIG, Ch 58 58, Rep 3 3 h16_colon, ls32, Cat (Ch 32 32) port], [Rep 0 3
        HEXDIG, Ch 58 58, Rep 2 2 h16_colon, ls32, Cat (Ch 32 32) port], [Rep 0 3 HEXDIG, Ch 58
        58, h16_colon, ls32, Cat (Ch 32 32) port], [Rep 0 3 HEXDIG, Ch 58 58, ls32, Cat (Ch 32 32)
        port], [Rep 0 3 HEXDIG, Cat (Ch 58 58) h16, Cat (Ch 32 32) port], [Cat (Ch 46 46) (Cat
        dec_octet (Cat (Ch 46 46) (Cat dec_octet (Cat (Ch 46 46) dec_octet)))), Cat (Ch 32 32)
        port], [DIGIT, Cat (Ch 46 46) (Cat dec_octet (Cat (Ch 46 46) (Cat dec_octet (Cat (Ch 46
        46) dec_octet)))), Cat (Ch 32 32) port], [Cat (Ch 48 52) DIGIT, Cat (Ch 46 46) (Cat
        dec_octet (Cat (Ch 46 46) (Cat dec_octet (Cat (Ch 46 46) dec_octet)))), Cat (Ch 32 32)
        port], [Cat (Ch 53 53) (Ch 48 53), Cat (Ch 46 46) (Cat dec_octet (Cat (Ch 46 46) (Cat
        dec_octet (Cat (Ch 46 46) dec_octet)))), Cat (Ch 32 32) port], [Rep 0 3 HEXDIG, Cat (Ch 32
        32) port]], [[Rep 0 3 HEXDIG, Ch 58 58, Rep 3 3 h16_colon, ls32, Cat (Ch 32 32) (Cat port
        ha_end)], [Rep 0 3 HEXDIG, Ch 58 58, Rep 2 2 h16_colon, ls32, Cat (Ch 32 32) (Cat port
        ha_end)], [Rep 0 3 HEXDIG, Ch 58 58, h16_colon, ls32, Cat (Ch 32 32) (Cat port ha_end)],
        [Rep 0 3 HEXDIG, Ch 58 58, ls32, Cat (Ch 32 32) (Cat port ha_end)], [Rep 0 3 HEXDIG, Cat
        (Ch 58 58) h16, Cat (Ch 32 32) (Cat port ha_end)], [Cat (Ch 46 46) (Cat dec_octet (Cat (Ch
        46 46) (Cat dec_octet (Cat (Ch 46 46) dec_octet)))), Cat (Ch 32 32) (Cat port ha_end)],
        [DIGIT, Cat (Ch 46 46) (Cat dec_octet (Cat (Ch 46 46) (Cat dec_octet (Cat (Ch 46 46)
        dec_octet)))), Cat (Ch 32 32) (Cat port ha_end)], [Cat (Ch 48 52) DIGIT, Cat (Ch 46 46)
        (Cat dec_octet (Cat (Ch 46 46) (Cat dec_octet (Cat (Ch 46 46) dec_octet)))), Cat (Ch 32
        32) (Cat port ha_end)], [Cat (Ch 53 53) (Ch 48 53), Cat (Ch 46 46) (Cat dec_octet (Cat (Ch
        46 46) (Cat dec_octet (Cat (Ch 46 46) dec_octet)))), Cat (Ch 32 32) (Cat port ha_end)],
        [Rep 0 3 HEXDIG, Cat (Ch 32 32) (Cat port ha_end)]], [], [[Rep 0 3 HEXDIG, Ch 58 58, Rep 3
        3 h16_colon, ls32, Ch 32 32], [Rep 0 3 HEXDIG, Ch 58 58, Rep 2 2 h16_colon, ls32, Ch 32
        32], [Rep 0 3 HEXDIG, Ch 58 58, h16_colon, ls32, Ch 32 32], [Rep 0 3 HEXDIG, Ch 58 58,
        ls32, Ch 32 32], [Rep 0 3 HEXDIG, Cat (Ch 58 58) h16, Ch 32 32], [Cat (Ch 46 46) (Cat
        dec_octet (Cat (Ch 46 46) (Cat dec_octet (Cat (Ch 46 46) dec_octet)))), Ch 32 32], [DIGIT,
        Cat (Ch 46 46) (Cat dec_octet (Cat (Ch 46 46) (Cat dec_octet (Cat (Ch 46 46)
        dec_octet)))), Ch 32 32], [Cat (Ch 48 52) DIGIT, Cat (Ch 46 46) (Cat dec_octet (Cat (Ch 46
        46) (Cat dec_octet (Cat (Ch 46 46) dec_octet)))), Ch 32 32], [Cat (Ch 53 53) (Ch 48 53),
        Cat (Ch 46 46) (Cat dec_octet (Cat (Ch 46 46) (Cat dec_octet (Cat (Ch 46 46)
        dec_octet)))), Ch 32 32], [Rep 0 3 HEXDIG, Ch 32 32]]]])
      else
      if s = 179 then ([-128, 32, 33, 46, 47, 48, 54, 58, 59, 65, 71, 97, 103], [[[], [], [[Rep 0
        2 HEXDIG, Ch 58 58, Rep 3 3 h16_colon, ls32, Cat (Ch 32 32) port], [Rep 0 2 HEXDIG, Ch 58
        58, Rep 2 2 h16_colon, ls32, Cat (Ch 32 32) port], [Rep 0 2 HEXDIG, Ch 58 58, h16_colon,
        ls32, Cat (Ch 32 32) port], [Rep 0 2 HEXDIG, Ch 58 58, ls32, Cat (Ch 32 32) port], [Rep 0
        2 HEXDIG, Cat (Ch 58 58) h16, Cat (Ch 32 32) port], [Cat (Ch 46 46) (Cat dec_octet (Cat
        (Ch 46 46) (Cat dec_octet (Cat (Ch 46 46) dec_octet)))), Cat (Ch 32 32) port], [Ch 48 53,
        Cat (Ch 46 46) (Cat dec_octet (Cat (Ch 46 46) (Cat dec_octet (Cat (Ch 46 46)
        dec_octet)))), Cat (Ch 32 32) port], [Rep 0 2 HEXDIG, Cat (Ch 32 32) port]], [[Rep 0 2
        HEXDIG, Ch 58 58, Rep 3 3 h16_colon, ls32, Cat (Ch 32 32) (Cat port ha_end)], [Rep 0 2
        HEXDIG, Ch 58 58, Rep 2 2 h16_colon, ls32, Cat (Ch 32 32) (Cat port ha_end)], [Rep 0 2
        HEXDIG, Ch 58 58, h16_colon, ls32, Cat (Ch 32 32) (Cat port ha_end)], [Rep 0 2 HEXDIG, Ch
        58 58, ls32, Cat (Ch 32 32) (Cat port ha_end)], [Rep 0 2 HEXDIG, Cat (Ch 58 58) h16, Cat
        (Ch 32 32) (Cat port ha_end)], [Cat (Ch 46 46) (Cat dec_octet (Cat (Ch 46 46) (Cat
        dec_octet (Cat (Ch 46 46) dec_octet)))), Cat (Ch 32 32) (Cat port ha_end)], [Ch 48 53, Cat
        (Ch 46 46) (Cat dec_octet (Cat (Ch 46 46) (Cat dec_octet (Cat (Ch 46 46) dec_octet)))),
        Cat (Ch 32 32) (Cat port ha_end)], [Rep 0 2 HEXDIG, Cat (Ch 32 32) (Cat port ha_end)]],
        [], [[Rep 0 2 HEXDIG, Ch 58 58, Rep 3 3 h16_colon, ls32, Ch 32 32], [Rep 0 2 HEXDIG, Ch 58
        58, Rep 2 2 h16_colon, ls32, Ch 32 32], [Rep 0 2 HEXDIG, Ch 58 58, h16_colon, ls32, Ch 32
        32], [Rep 0 2 HEXDIG, Ch 58 58, ls32, Ch 32 32], [Rep 0 2 HEXDIG, Cat (Ch 58 58) h16, Ch
        32 32], [Cat (Ch 46 46) (Cat dec_octet (Cat (Ch 46 46) (Cat dec_octet (Cat (Ch 46 46)
        dec_octet)))), Ch 32 32], [Ch 48 53, Cat (Ch 46 46) (Cat dec_octet (Cat (Ch 46 46) (Cat
        dec_octet (Cat (Ch 46 46) dec_octet)))), Ch 32 32], [Rep 0 2 HEXDIG, Ch 32 32]]]])
      else
      if s = 180 then ([-128, 32, 33, 46, 47, 48, 58, 59, 65, 71, 97, 103], [[[], [], [[Rep 0 2
        HEXDIG, Ch 58 58, Rep 3 3 h16_colon, ls32, Cat (Ch 32 32) port], [Rep 0 2 HEXDIG, Ch 58
        58, Rep 2 2 h16_colon, ls32, Cat (Ch 32 32) port], [Rep 0 2 HEXDIG, Ch 58 58, h16_colon,
        ls32, Cat (Ch 32 32) port], [Rep 0 2 HEXDIG, Ch 58 58, ls32, Cat (Ch 32 32) port], [Rep 0
        2 HEXDIG, Cat (Ch 58 58) h16, Cat (Ch 32 32) port], [Cat (Ch 46 46) (Cat dec_octet (Cat
        (Ch 46 46) (Cat dec_octet (Cat (Ch 46 46) dec_octet)))), Cat (Ch 32 32) port], [Rep 0 2
        HEXDIG, Cat (Ch 32 32) port]], [[Rep 0 2 HEXDIG, Ch 58 58, Rep 3 3 h16_colon, ls32, Cat
        (Ch 32 32) (Cat port ha_end)], [Rep 0 2 HEXDIG, Ch 58 58, Rep 2 2 h16_colon, ls32, Cat (Ch
        32 32) (Cat port ha_end)], [Rep 0 2 HEXDIG, Ch 58 58, h16_colon, ls32, Cat (Ch 32 32) (Cat
        port ha_end)], [Rep 0 2 HEXDIG, Ch 58 58, ls32, Cat (Ch 32 32) (Cat port ha_end)], [Rep 0
        2 HEXDIG, Cat (Ch 58 58) h16, Cat (Ch 32 32) (Cat port ha_end)], [Cat (Ch 46 46) (Cat
        dec_octet (Cat (Ch 46 46) (Cat dec_octet (Cat (Ch 46 46) dec_octet)))), Cat (Ch 32 32)
        (Cat port ha_end)], [Rep 0 2 HEXDIG, Cat (Ch 32 32) (Cat port ha_end)]], [], [[Rep 0 2
        HEXDIG, Ch 58 58, Rep 3 3 h16_colon, ls32, Ch 32 32], [Rep 0 2 HEXDIG, Ch 58 58, Rep 2 2
        h16_colon, ls32, Ch 32 32], [Rep 0 2 HEXDIG, Ch 58 58, h16_colon, ls32, Ch 32 32], [Rep 0
        2 HEXDIG, Ch 58 58, ls32, Ch 32 32], [Rep 0 2 HEXDIG, Cat (Ch 58 58) h16, Ch 32 32], [Cat
        (Ch 46 46) (Cat dec_octet (Cat (Ch 46 46) (Cat dec_octet (Cat (Ch 46 46) dec_octet)))), Ch
        32 32], [Rep 0 2 HEXDIG, Ch 32 32]]]])
      else
      if s = 181 then ([-128, 32, 33, 46, 47, 48, 58, 59, 65, 71, 97, 103], [[[], [], [[Rep 0 3
        HEXDIG, Ch 58 58, Rep 3 3 h16_colon, ls32, Cat (Ch 32 32) port], [Rep 0 3 HEXDIG, Ch 58
        58, Rep 2 2 h16_colon, ls32, Cat (Ch 32 32) port], [Rep 0 3 HEXDIG, Ch 58 58, h16_colon,
        ls32, Cat (Ch 32 32) port], [Rep 0 3 HEXDIG, Ch 58 58, ls32, Cat (Ch 32 32) port], [Rep 0
        3 HEXDIG, Cat (Ch 58 58) h16, Cat (Ch 32 32) port], [Cat (Ch 46 46) (Cat dec_octet (Cat
        (Ch 46 46) (Cat dec_octet (Cat (Ch 46 46) dec_octet)))), Cat (Ch 32 32) port], [DIGIT, Cat
        (Ch 46 46) (Cat dec_octet (Cat (Ch 46 46) (Cat dec_octet (Cat (Ch 46 46) dec_octet)))),
        Cat (Ch 32 32) port], [Rep 0 3 HEXDIG, Cat (Ch 32 32) port]], [[Rep 0 3 HEXDIG, Ch 58 58,
        Rep 3 3 h16_colon, ls32, Cat (Ch 32 32) (Cat port ha_end)], [Rep 0 3 HEXDIG, Ch 58 58, Rep
        2 2 h16_colon, ls32, Cat (Ch 32 32) (Cat port ha_end)], [Rep 0 3 HEXDIG, Ch 58 58,
        h16_colon, ls32, Cat (Ch 32 32) (Cat port ha_end)], [Rep 0 3 HEXDIG, Ch 58 58, ls32, Cat
        (Ch 32 32) (Cat port ha_end)], [Rep 0 3 HEXDIG, Cat (Ch 58 58) h16, Cat (Ch 32 32) (Cat
        port ha_end)], [Cat (Ch 46 46) (Cat dec_octet (Cat (Ch 46 46) (Cat dec_octet (Cat (Ch 46
        46) dec_octet)))), Cat (Ch 32 32) (Cat port ha_end)], [DIGIT, Cat (Ch 46 46) (Cat
        dec_octet (Cat (Ch 46 46) (Cat dec_octet (Cat (Ch 46 46) dec_octet)))), Cat (Ch 32 32)
        (Cat port ha_end)], [Rep 0 3 HEXDIG, Cat (Ch 32 32) (Cat port ha_end)]], [], [[Rep 0 3
        HEXDIG, Ch 58 58, Rep 3 3 h16_colon, ls32, Ch 32 32], [Rep 0 3 HEXDIG, Ch 58 58, Rep 2 2
        h16_colon, ls32, Ch 32 32], [Rep 0 3 HEXDIG, Ch 58 58, h16_colon, ls32, Ch 32 32], [Rep 0
        3 HEXDIG, Ch 58 58, ls32, Ch 32 32], [Rep 0 3 HEXDIG, Cat (Ch 58 58) h16, Ch 32 32], [Cat
        (Ch 46 46) (Cat dec_octet (Cat (Ch 46 46) (Cat dec_octet (Cat (Ch 46 46) dec_octet)))), Ch
        32 32], [DIGIT, Cat (Ch 46 46) (Cat dec_octet (Cat (Ch 46 46) (Cat dec_octet (Cat (Ch 46
        46) dec_octet)))), Ch 32 32], [Rep 0 3 HEXDIG, Ch 32 32]]]])
      else
      if s = 182 then ([-128, 32, 33, 48, 58, 59, 65, 71, 97, 103], [[[], [], [[Rep 0 3 HEXDIG, Ch
        58 58, Rep 3 3 h16_colon, ls32, Cat (Ch 32 32) port], [Rep 0 3 HEXDIG, Ch 58 58, Rep 2 2
        h16_colon, ls32, Cat (Ch 32 32) port], [Rep 0 3 HEXDIG, Ch 58 58, h16_colon, ls32, Cat (Ch
        32 32) port], [Rep 0 3 HEXDIG, Ch 58 58, ls32, Cat (Ch 32 32) port], [Rep 0 3 HEXDIG, Cat
        (Ch 58 58) h16, Cat (Ch 32 32) port], [Rep 0 3 HEXDIG, Cat (Ch 32 32) port]], [[Rep 0 3
        HEXDIG, Ch 58 58, Rep 3 3 h16_colon, ls32, Cat (Ch 32 32) (Cat port ha_end)], [Rep 0 3
        HEXDIG, Ch 58 58, Rep 2 2 h16_colon, ls32, Cat (Ch 32 32) (Cat port ha_end)], [Rep 0 3
        HEXDIG, Ch 58 58, h16_colon, ls32, Cat (Ch 32 32) (Cat port ha_end)], [Rep 0 3 HEXDIG, Ch
        58 58, ls32, Cat (Ch 32 32) (Cat port ha_end)], [Rep 0 3 HEXDIG, Cat (Ch 58 58) h16, Cat
        (Ch 32 32) (Cat port ha_end)], [Rep 0 3 HEXDIG, Cat (Ch 32 32) (Cat port ha_end)]], [],
        [[Rep 0 3 HEXDIG, Ch 58 58, Rep 3 3 h16_colon, ls32, Ch 32 32], [Rep 0 3 HEXDIG, Ch 58 58,
        Rep 2 2 h16_colon, ls32, Ch 32 32], [Rep 0 3 HEXDIG, Ch 58 58, h16_colon, ls32, Ch 32 32],
        [Rep 0 3 HEXDIG, Ch 58 58, ls32, Ch 32 32], [Rep 0 3 HEXDIG, Cat (Ch 58 58) h16, Ch 32
        32], [Rep 0 3 HEXDIG, Ch 32 32]]]])
      else
      if s = 183 then ([-128, 46, 47, 48, 58, 59, 65, 71, 97, 103], [[[], [], [[Cat (Ch 46 46)
        (Cat dec_octet (Cat (Ch 46 46) (Cat dec_octet (Cat (Ch 46 46) dec_octet)))), Cat (Ch 32
        32) port], [DIGIT, Cat (Ch 46 46) (Cat dec_octet (Cat (Ch 46 46) (Cat dec_octet (Cat (Ch
        46 46) dec_octet)))), Cat (Ch 32 32) port], [Rep 2 2 DIGIT, Cat (Ch 46 46) (Cat dec_octet
        (Cat (Ch 46 46) (Cat dec_octet (Cat (Ch 46 46) dec_octet)))), Cat (Ch 32 32) port], [Rep 0
        3 HEXDIG, Ch 58 58, Rep 5 5 h16_colon, ls32, Cat (Ch 32 32) port], [Rep 0 3 HEXDIG, Cat
        dcolon (Cat (Rep 4 4 h16_colon) ls32), Cat (Ch 32 32) port], [Rep 0 3 HEXDIG, Cat dcolon
        (Cat (Rep 3 3 h16_colon) ls32), Cat (Ch 32 32) port], [Rep 0 3 HEXDIG, Ch 58 58, h16, Cat
        dcolon (Cat (Rep 3 3 h16_colon) ls32), Cat (Ch 32 32) port], [Rep 0 3 HEXDIG, Cat dcolon
        (Cat (Rep 2 2 h16_colon) ls32), Cat (Ch 32 32) port], [Rep 0 3 HEXDIG, Ch 58 58, Rep 0 1
        h16_colon, h16, Cat dcolon (Cat (Rep 2 2 h16_colon) ls32), Cat (Ch 32 32) port], [Rep 0 3
        HEXDIG, Cat dcolon (Cat h16_colon ls32), Cat (Ch 32 32) port], [Rep 0 3 HEXDIG, Ch 58 58,
        Rep 0 2 h16_colon, h16, Cat dcolon (Cat h16_colon ls32), Cat (Ch 32 32) port], [Rep 0 3
        HEXDIG, Cat dcolon ls32, Cat (Ch 32 32) port], [Rep 0 3 HEXDIG, Ch 58 58, Rep 0 3
        h16_colon, h16, Cat dcolon ls32, Cat (Ch 32 32) port], [Rep 0 3 HEXDIG, Cat dcolon h16,
        Cat (Ch 32 32) port], [Rep 0 3 HEXDIG, Ch 58 58, Rep 0 4 h16_colon, h16, Cat dcolon h16,
        Cat (Ch 32 32) port], [Rep 0 3 HEXDIG, dcolon, Cat (Ch 32 32) port], [Rep 0 3 HEXDIG, Ch
        58 58, Rep 0 5 h16_colon, h16, dcolon, Cat (Ch 32 32) port]], [[Cat (Ch 46 46) (Cat
        dec_octet (Cat (Ch 46 46) (Cat dec_octet (Cat (Ch 46 46) dec_octet)))), Cat (Ch 32 32)
        (Cat port ha_end)], [DIGIT, Cat (Ch 46 46) (Cat dec_octet (Cat (Ch 46 46) (Cat dec_octet
        (Cat (Ch 46 46) dec_octet)))), Cat (Ch 32 32) (Cat port ha_end)], [Rep 2 2 DIGIT, Cat (Ch
        46 46) (Cat dec_octet (Cat (Ch 46 46) (Cat dec_octet (Cat (Ch 46 46) dec_octet)))), Cat
        (Ch 32 32) (Cat port ha_end)], [Rep 0 3 HEXDIG, Ch 58 58, Rep 5 5 h16_colon, ls32, Cat (Ch
        32 32) (Cat port ha_end)], [Rep 0 3 HEXDIG, Cat dcolon (Cat (Rep 4 4 h16_colon) ls32), Cat
        (Ch 32 32) (Cat port ha_end)], [Rep 0 3 HEXDIG, Cat dcolon (Cat (Rep 3 3 h16_colon) ls32),
        Cat (Ch 32 32) (Cat port ha_end)], [Rep 0 3 HEXDIG, Ch 58 58, h16, Cat dcolon (Cat (Rep 3
        3 h16_colon) ls32), Cat (Ch 32 32) (Cat port ha_end)], [Rep 0 3 HEXDIG, Cat dcolon (Cat
        (Rep 2 2 h16_colon) ls32), Cat (Ch 32 32) (Cat port ha_end)], [Rep 0 3 HEXDIG, Ch 58 58,
        Rep 0 1 h16_colon, h16, Cat dcolon (Cat (Rep 2 2 h16_colon) ls32), Cat (Ch 32 32) (Cat
        port ha_end)], [Rep 0 3 HEXDIG, Cat dcolon (Cat h16_colon ls32), Cat (Ch 32 32) (Cat port
        ha_end)], [Rep 0 3 HEXDIG, Ch 58 58, Rep 0 2 h16_colon, h16, Cat dcolon (Cat h16_colon
        ls32), Cat (Ch 32 32) (Cat port ha_end)], [Rep 0 3 HEXDIG, Cat dcolon ls32, Cat (Ch 32 32)
        (Cat port ha_end)], [Rep 0 3 HEXDIG, Ch 58 58, Rep 0 3 h16_colon, h16, Cat dcolon ls32,
        Cat (Ch 32 32) (Cat port ha_end)], [Rep 0 3 HEXDIG, Cat dcolon h16, Cat (Ch 32 32) (Cat
        port ha_end)], [Rep 0 3 HEXDIG, Ch 58 58, Rep 0 4 h16_colon, h16, Cat dcolon h16, Cat (Ch
        32 32) (Cat port ha_end)], [Rep 0 3 HEXDIG, dcolon, Cat (Ch 32 32) (Cat port ha_end)],
        [Rep 0 3 HEXDIG, Ch 58 58, Rep 0 5 h16_colon, h16, dcolon, Cat (Ch 32 32) (Cat port
        ha_end)]], [], [[Cat (Ch 46 46) (Cat dec_octet (Cat (Ch 46 46) (Cat dec_octet (Cat (Ch 46
        46) dec_octet)))), Ch 32 32], [DIGIT, Cat (Ch 46 46) (Cat dec_octet (Cat (Ch 46 46) (Cat
        dec_octet (Cat (Ch 46 46) dec_octet)))), Ch 32 32], [Rep 2 2 DIGIT, Cat (Ch 46 46) (Cat
        dec_octet (Cat (Ch 46 46) (Cat dec_octet (Cat (Ch 46 46) dec_octet)))), Ch 32 32], [Rep 0
        3 HEXDIG, Ch 58 58, Rep 5 5 h16_colon, ls32, Ch 32 32], [Rep 0 3 HEXDIG, Cat dcolon (Cat
        (Rep 4 4 h16_colon) ls32), Ch 32 32], [Rep 0 3 HEXDIG, Cat dcolon (Cat (Rep 3 3 h16_colon)
        ls32), Ch 32 32], [Rep 0 3 HEXDIG, Ch 58 58, h16, Cat dcolon (Cat (Rep 3 3 h16_colon)
        ls32), Ch 32 32], [Rep 0 3 HEXDIG, Cat dcolon (Cat (Rep 2 2 h16_colon) ls32), Ch 32 32],
        [Rep 0 3 HEXDIG, Ch 58 58, Rep 0 1 h16_colon, h16, Cat dcolon (Cat (Rep 2 2 h16_colon)
        ls32), Ch 32 32], [Rep 0 3 HEXDIG, Cat dcolon (Cat h16_colon ls32), Ch 32 32], [Rep 0 3
        HEXDIG, Ch 58 58, Rep 0 2 h16_colon, h16, Cat dcolon (Cat h16_colon ls32), Ch 32 32], [Rep
        0 3 HEXDIG, Cat dcolon ls32, Ch 32 32], [Rep 0 3 HEXDIG, Ch 58 58, Rep 0 3 h16_colon, h16,
        Cat dcolon ls32, Ch 32 32], [Rep 0 3 HEXDIG, Cat dcolon h16, Ch 32 32], [Rep 0 3 HEXDIG,
        Ch 58 58, Rep 0 4 h16_colon, h16, Cat dcolon h16, Ch 32 32], [Rep 0 3 HEXDIG, dcolon, Ch
        32 32], [Rep 0 3 HEXDIG, Ch 58 58, Rep 0 5 h16_colon, h16, dcolon, Ch 32 32]]]])
      else
      ([-128, 46, 47, 48, 58, 59, 65, 71, 97, 103], [[[], [], [[Cat (Ch 46 46) (Cat dec_octet (Cat
        (Ch 46 46) (Cat dec_octet (Cat (Ch 46 46) dec_octet)))), Cat (Ch 32 32) port], [DIGIT, Cat
        (Ch 46 46) (Cat dec_octet (Cat (Ch 46 46) (Cat dec_octet (Cat (Ch 46 46) dec_octet)))),
        Cat (Ch 32 32) port], [Rep 0 2 HEXDIG, Ch 58 58, Rep 5 5 h16_colon, ls32, Cat (Ch 32 32)
        port], [Rep 0 2 HEXDIG, Cat dcolon (Cat (Rep 4 4 h16_colon) ls32), Cat (Ch 32 32) port],
        [Rep 0 2 HEXDIG, Cat dcolon (Cat (Rep 3 3 h16_colon) ls32), Cat (Ch 32 32) port], [Rep 0 2
        HEXDIG, Ch 58 58, h16, Cat dcolon (Cat (Rep 3 3 h16_colon) ls32), Cat (Ch 32 32) port],
        [Rep 0 2 HEXDIG, Cat dcolon (Cat (Rep 2 2 h16_colon) ls32), Cat (Ch 32 32) port], [Rep 0 2
        HEXDIG, Ch 58 58, Rep 0 1 h16_colon, h16, Cat dcolon (Cat (Rep 2 2 h16_colon) ls32), Cat
        (Ch 32 32) port], [Rep 0 2 HEXDIG, Cat dcolon (Cat h16_colon ls32), Cat (Ch 32 32) port],
        [Rep 0 2 HEXDIG, Ch 58 58, Rep 0 2 h16_colon, h16, Cat dcolon (Cat h16_colon ls32), Cat
        (Ch 32 32) port], [Rep 0 2 HEXDIG, Cat dcolon ls32, Cat (Ch 32 32) port], [Rep 0 2 HEXDIG,
        Ch 58 58, Rep 0 3 h16_colon, h16, Cat dcolon ls32, Cat (Ch 32 32) port], [Rep 0 2 HEXDIG,
        Cat dcolon h16, Cat (Ch 32 32) port], [Rep 0 2 HEXDIG, Ch 58 58, Rep 0 4 h16_colon, h16,
        Cat dcolon h16, Cat (Ch 32 32) port], [Rep 0 2 HEXDIG, dcolon, Cat (Ch 32 32) port], [Rep
        0 2 HEXDIG, Ch 58 58, Rep 0 5 h16_colon, h16, dcolon, Cat (Ch 32 32) port]], [[Cat (Ch 46
        46) (Cat dec_octet (Cat (Ch 46 46) (Cat dec_octet (Cat (Ch 46 46) dec_octet)))), Cat (Ch
        32 32) (Cat port ha_end)], [DIGIT, Cat (Ch 46 46) (Cat dec_octet (Cat (Ch 46 46) (Cat
        dec_octet (Cat (Ch 46 46) dec_octet)))), Cat (Ch 32 32) (Cat port ha_end)], [Rep 0 2
        HEXDIG, Ch 58 58, Rep 5 5 h16_colon, ls32, Cat (Ch 32 32) (Cat port ha_end)], [Rep 0 2
        HEXDIG, Cat dcolon (Cat (Rep 4 4 h16_colon) ls32), Cat (Ch 32 32) (Cat port ha_end)], [Rep
        0 2 HEXDIG, Cat dcolon (Cat (Rep 3 3 h16_colon) ls32), Cat (Ch 32 32) (Cat port ha_end)],
        [Rep 0 2 HEXDIG, Ch 58 58, h16, Cat dcolon (Cat (Rep 3 3 h16_colon) ls32), Cat (Ch 32 32)
        (Cat port ha_end)], [Rep 0 2 HEXDIG, Cat dcolon (Cat (Rep 2 2 h16_colon) ls32), Cat (Ch 32
        32) (Cat port ha_end)], [Rep 0 2 HEXDIG, Ch 58 58, Rep 0 1 h16_colon, h16, Cat dcolon (Cat
        (Rep 2 2 h16_colon) ls32), Cat (Ch 32 32) (Cat port ha_end)], [Rep 0 2 HEXDIG, Cat dcolon
        (Cat h16_colon ls32), Cat (Ch 32 32) (Cat port ha_end)], [Rep 0 2 HEXDIG, Ch 58 58, Rep 0
        2 h16_colon, h16, Cat dcolon (Cat h16_colon ls32), Cat (Ch 32 32) (Cat port ha_end)], [Rep
        0 2 HEXDIG, Cat dcolon ls32, Cat (Ch 32 32) (Cat port ha_end)], [Rep 0 2 HEXDIG, Ch 58 58,
        Rep 0 3 h16_colon, h16, Cat dcolon ls32, Cat (Ch 32 32) (Cat port ha_end)], [Rep 0 2
        HEXDIG, Cat dcolon h16, Cat (Ch 32 32) (Cat port ha_end)], [Rep 0 2 HEXDIG, Ch 58 58, Rep
        0 4 h16_colon, h16, Cat dcolon h16, Cat (Ch 32 32) (Cat port ha_end)], [Rep 0 2 HEXDIG,
        dcolon, Cat (Ch 32 32) (Cat port ha_end)], [Rep 0 2 HEXDIG, Ch 58 58, Rep 0 5 h16_colon,
        h16, dcolon, Cat (Ch 32 32) (Cat port ha_end)]], [], [[Cat (Ch 46 46) (Cat dec_octet (Cat
        (Ch 46 46) (Cat dec_octet (Cat (Ch 46 46) dec_octet)))), Ch 32 32], [DIGIT, Cat (Ch 46 46)
        (Cat dec_octet (Cat (Ch 46 46) (Cat dec_octet (Cat (Ch 46 46) dec_octet)))), Ch 32 32],
        [Rep 0 2 HEXDIG, Ch 58 58, Rep 5 5 h16_colon, ls32, Ch 32 32], [Rep 0 2 HEXDIG, Cat dcolon
        (Cat (Rep 4 4 h16_colon) ls32), Ch 32 32], [Rep 0 2 HEXDIG, Cat dcolon (Cat (Rep 3 3
        h16_colon) ls32), Ch 32 32], [Rep 0 2 HEXDIG, Ch 58 58, h16, Cat dcolon (Cat (Rep 3 3
        h16_colon) ls32), Ch 32 32], [Rep 0 2 HEXDIG, Cat dcolon (Cat (Rep 2 2 h16_colon) ls32),
        Ch 32 32], [Rep 0 2 HEXDIG, Ch 58 58, Rep 0 1 h16_colon, h16, Cat dcolon (Cat (Rep 2 2
        h16_colon) ls32), Ch 32 32], [Rep 0 2 HEXDIG, Cat dcolon (Cat h16_colon ls32), Ch 32 32],
        [Rep 0 2 HEXDIG, Ch 58 58, Rep 0 2 h16_colon, h16, Cat dcolon (Cat h16_colon ls32), Ch 32
        32], [Rep 0 2 HEXDIG, Cat dcolon ls32, Ch 32 32], [Rep 0 2 HEXDIG, Ch 58 58, Rep 0 3
        h16_colon, h16, Cat dcolon ls32, Ch 32 32], [Rep 0 2 HEXDIG, Cat dcolon h16, Ch 32 32],
        [Rep 0 2 HEXDIG, Ch 58 58, Rep 0 4 h16_colon, h16, Cat dcolon h16, Ch 32 32], [Rep 0 2
        HEXDIG, dcolon, Ch 32 32], [Rep 0 2 HEXDIG, Ch 58 58, Rep 0 5 h16_colon, h16, dcolon, Ch
        32 32]]]]))"

definition ha_expects_24 :: certificate where
  "ha_expects_24 s =
     (if s = 185 then ([-128, 46, 47, 48, 58, 59, 65, 71, 97, 103], [[[], [], [[Cat (Ch 46 46)
        (Cat dec_octet (Cat (Ch 46 46) (Cat dec_octet (Cat (Ch 46 46) dec_octet)))), Cat (Ch 32
        32) port], [Rep 0 1 HEXDIG, Ch 58 58, Rep 5 5 h16_colon, ls32, Cat (Ch 32 32) port], [Rep
        0 1 HEXDIG, Cat dcolon (Cat (Rep 4 4 h16_colon) ls32), Cat (Ch 32 32) port], [Rep 0 1
        HEXDIG, Cat dcolon (Cat (Rep 3 3 h16_colon) ls32), Cat (Ch 32 32) port], [Rep 0 1 HEXDIG,
        Ch 58 58, h16, Cat dcolon (Cat (Rep 3 3 h16_colon) ls32), Cat (Ch 32 32) port], [Rep 0 1
        HEXDIG, Cat dcolon (Cat (Rep 2 2 h16_colon) ls32), Cat (Ch 32 32) port], [Rep 0 1 HEXDIG,
        Ch 58 58, Rep 0 1 h16_colon, h16, Cat dcolon (Cat (Rep 2 2 h16_colon) ls32), Cat (Ch 32
        32) port], [Rep 0 1 HEXDIG, Cat dcolon (Cat h16_colon ls32), Cat (Ch 32 32) port], [Rep 0
        1 HEXDIG, Ch 58 58, Rep 0 2 h16_colon, h16, Cat dcolon (Cat h16_colon ls32), Cat (Ch 32
        32) port], [Rep 0 1 HEXDIG, Cat dcolon ls32, Cat (Ch 32 32) port], [Rep 0 1 HEXDIG, Ch 58
        58, Rep 0 3 h16_colon, h16, Cat dcolon ls32, Cat (Ch 32 32) port], [Rep 0 1 HEXDIG, Cat
        dcolon h16, Cat (Ch 32 32) port], [Rep 0 1 HEXDIG, Ch 58 58, Rep 0 4 h16_colon, h16, Cat
        dcolon h16, Cat (Ch 32 32) port], [Rep 0 1 HEXDIG, dcolon, Cat (Ch 32 32) port], [Rep 0 1
        HEXDIG, Ch 58 58, Rep 0 5 h16_colon, h16, dcolon, Cat (Ch 32 32) port]], [[Cat (Ch 46 46)
        (Cat dec_octet (Cat (Ch 46 46) (Cat dec_octet (Cat (Ch 46 46) dec_octet)))), Cat (Ch 32
        32) (Cat port ha_end)], [Rep 0 1 HEXDIG, Ch 58 58, Rep 5 5 h16_colon, ls32, Cat (Ch 32 32)
        (Cat port ha_end)], [Rep 0 1 HEXDIG, Cat dcolon (Cat (Rep 4 4 h16_colon) ls32), Cat (Ch 32
        32) (Cat port ha_end)], [Rep 0 1 HEXDIG, Cat dcolon (Cat (Rep 3 3 h16_colon) ls32), Cat
        (Ch 32 32) (Cat port ha_end)], [Rep 0 1 HEXDIG, Ch 58 58, h16, Cat dcolon (Cat (Rep 3 3
        h16_colon) ls32), Cat (Ch 32 32) (Cat port ha_end)], [Rep 0 1 HEXDIG, Cat dcolon (Cat (Rep
        2 2 h16_colon) ls32), Cat (Ch 32 32) (Cat port ha_end)], [Rep 0 1 HEXDIG, Ch 58 58, Rep 0
        1 h16_colon, h16, Cat dcolon (Cat (Rep 2 2 h16_colon) ls32), Cat (Ch 32 32) (Cat port
        ha_end)], [Rep 0 1 HEXDIG, Cat dcolon (Cat h16_colon ls32), Cat (Ch 32 32) (Cat port
        ha_end)], [Rep 0 1 HEXDIG, Ch 58 58, Rep 0 2 h16_colon, h16, Cat dcolon (Cat h16_colon
        ls32), Cat (Ch 32 32) (Cat port ha_end)], [Rep 0 1 HEXDIG, Cat dcolon ls32, Cat (Ch 32 32)
        (Cat port ha_end)], [Rep 0 1 HEXDIG, Ch 58 58, Rep 0 3 h16_colon, h16, Cat dcolon ls32,
        Cat (Ch 32 32) (Cat port ha_end)], [Rep 0 1 HEXDIG, Cat dcolon h16, Cat (Ch 32 32) (Cat
        port ha_end)], [Rep 0 1 HEXDIG, Ch 58 58, Rep 0 4 h16_colon, h16, Cat dcolon h16, Cat (Ch
        32 32) (Cat port ha_end)], [Rep 0 1 HEXDIG, dcolon, Cat (Ch 32 32) (Cat port ha_end)],
        [Rep 0 1 HEXDIG, Ch 58 58, Rep 0 5 h16_colon, h16, dcolon, Cat (Ch 32 32) (Cat port
        ha_end)]], [], [[Cat (Ch 46 46) (Cat dec_octet (Cat (Ch 46 46) (Cat dec_octet (Cat (Ch 46
        46) dec_octet)))), Ch 32 32], [Rep 0 1 HEXDIG, Ch 58 58, Rep 5 5 h16_colon, ls32, Ch 32
        32], [Rep 0 1 HEXDIG, Cat dcolon (Cat (Rep 4 4 h16_colon) ls32), Ch 32 32], [Rep 0 1
        HEXDIG, Cat dcolon (Cat (Rep 3 3 h16_colon) ls32), Ch 32 32], [Rep 0 1 HEXDIG, Ch 58 58,
        h16, Cat dcolon (Cat (Rep 3 3 h16_colon) ls32), Ch 32 32], [Rep 0 1 HEXDIG, Cat dcolon
        (Cat (Rep 2 2 h16_colon) ls32), Ch 32 32], [Rep 0 1 HEXDIG, Ch 58 58, Rep 0 1 h16_colon,
        h16, Cat dcolon (Cat (Rep 2 2 h16_colon) ls32), Ch 32 32], [Rep 0 1 HEXDIG, Cat dcolon
        (Cat h16_colon ls32), Ch 32 32], [Rep 0 1 HEXDIG, Ch 58 58, Rep 0 2 h16_colon, h16, Cat
        dcolon (Cat h16_colon ls32), Ch 32 32], [Rep 0 1 HEXDIG, Cat dcolon ls32, Ch 32 32], [Rep
        0 1 HEXDIG, Ch 58 58, Rep 0 3 h16_colon, h16, Cat dcolon ls32, Ch 32 32], [Rep 0 1 HEXDIG,
        Cat dcolon h16, Ch 32 32], [Rep 0 1 HEXDIG, Ch 58 58, Rep 0 4 h16_colon, h16, Cat dcolon
        h16, Ch 32 32], [Rep 0 1 HEXDIG, dcolon, Ch 32 32], [Rep 0 1 HEXDIG, Ch 58 58, Rep 0 5
        h16_colon, h16, dcolon, Ch 32 32]]]])
      else
      if s = 186 then ([-128, 46, 47, 48, 53, 54, 58, 59, 65, 71, 97, 103], [[[], [], [[Cat (Ch 46
        46) (Cat dec_octet (Cat (Ch 46 46) (Cat dec_octet (Cat (Ch 46 46) dec_octet)))), Cat (Ch
        32 32) port], [DIGIT, Cat (Ch 46 46) (Cat dec_octet (Cat (Ch 46 46) (Cat dec_octet (Cat
        (Ch 46 46) dec_octet)))), Cat (Ch 32 32) port], [Cat (Ch 48 52) DIGIT, Cat (Ch 46 46) (Cat
        dec_octet (Cat (Ch 46 46) (Cat dec_octet (Cat (Ch 46 46) dec_octet)))), Cat (Ch 32 32)
        port], [Cat (Ch 53 53) (Ch 48 53), Cat (Ch 46 46) (Cat dec_octet (Cat (Ch 46 46) (Cat
        dec_octet (Cat (Ch 46 46) dec_octet)))), Cat (Ch 32 32) port], [Rep 0 3 HEXDIG, Ch 58 58,
        Rep 5 5 h16_colon, ls32, Cat (Ch 32 32) port], [Rep 0 3 HEXDIG, Cat dcolon (Cat (Rep 4 4
        h16_colon) ls32), Cat (Ch 32 32) port], [Rep 0 3 HEXDIG, Cat dcolon (Cat (Rep 3 3
        h16_colon) ls32), Cat (Ch 32 32) port], [Rep 0 3 HEXDIG, Ch 58 58, h16, Cat dcolon (Cat
        (Rep 3 3 h16_colon) ls32), Cat (Ch 32 32) port], [Rep 0 3 HEXDIG, Cat dcolon (Cat (Rep 2 2
        h16_colon) ls32), Cat (Ch 32 32) port], [Rep 0 3 HEXDIG, Ch 58 58, Rep 0 1 h16_colon, h16,
        Cat dcolon (Cat (Rep 2 2 h16_colon) ls32), Cat (Ch 32 32) port], [Rep 0 3 HEXDIG, Cat
        dcolon (Cat h16_colon ls32), Cat (Ch 32 32) port], [Rep 0 3 HEXDIG, Ch 58 58, Rep 0 2
        h16_colon, h16, Cat dcolon (Cat h16_colon ls32), Cat (Ch 32 32) port], [Rep 0 3 HEXDIG,
        Cat dcolon ls32, Cat (Ch 32 32) port], [Rep 0 3 HEXDIG, Ch 58 58, Rep 0 3 h16_colon, h16,
        Cat dcolon ls32, Cat (Ch 32 32) port], [Rep 0 3 HEXDIG, Cat dcolon h16, Cat (Ch 32 32)
        port], [Rep 0 3 HEXDIG, Ch 58 58, Rep 0 4 h16_colon, h16, Cat dcolon h16, Cat (Ch 32 32)
        port], [Rep 0 3 HEXDIG, dcolon, Cat (Ch 32 32) port], [Rep 0 3 HEXDIG, Ch 58 58, Rep 0 5
        h16_colon, h16, dcolon, Cat (Ch 32 32) port]], [[Cat (Ch 46 46) (Cat dec_octet (Cat (Ch 46
        46) (Cat dec_octet (Cat (Ch 46 46) dec_octet)))), Cat (Ch 32 32) (Cat port ha_end)],
        [DIGIT, Cat (Ch 46 46) (Cat dec_octet (Cat (Ch 46 46) (Cat dec_octet (Cat (Ch 46 46)
        dec_octet)))), Cat (Ch 32 32) (Cat port ha_end)], [Cat (Ch 48 52) DIGIT, Cat (Ch 46 46)
        (Cat dec_octet (Cat (Ch 46 46) (Cat dec_octet (Cat (Ch 46 46) dec_octet)))), Cat (Ch 32
        32) (Cat port ha_end)], [Cat (Ch 53 53) (Ch 48 53), Cat (Ch 46 46) (Cat dec_octet (Cat (Ch
        46 46) (Cat dec_octet (Cat (Ch 46 46) dec_octet)))), Cat (Ch 32 32) (Cat port ha_end)],
        [Rep 0 3 HEXDIG, Ch 58 58, Rep 5 5 h16_colon, ls32, Cat (Ch 32 32) (Cat port ha_end)],
        [Rep 0 3 HEXDIG, Cat dcolon (Cat (Rep 4 4 h16_colon) ls32), Cat (Ch 32 32) (Cat port
        ha_end)], [Rep 0 3 HEXDIG, Cat dcolon (Cat (Rep 3 3 h16_colon) ls32), Cat (Ch 32 32) (Cat
        port ha_end)], [Rep 0 3 HEXDIG, Ch 58 58, h16, Cat dcolon (Cat (Rep 3 3 h16_colon) ls32),
        Cat (Ch 32 32) (Cat port ha_end)], [Rep 0 3 HEXDIG, Cat dcolon (Cat (Rep 2 2 h16_colon)
        ls32), Cat (Ch 32 32) (Cat port ha_end)], [Rep 0 3 HEXDIG, Ch 58 58, Rep 0 1 h16_colon,
        h16, Cat dcolon (Cat (Rep 2 2 h16_colon) ls32), Cat (Ch 32 32) (Cat port ha_end)], [Rep 0
        3 HEXDIG, Cat dcolon (Cat h16_colon ls32), Cat (Ch 32 32) (Cat port ha_end)], [Rep 0 3
        HEXDIG, Ch 58 58, Rep 0 2 h16_colon, h16, Cat dcolon (Cat h16_colon ls32), Cat (Ch 32 32)
        (Cat port ha_end)], [Rep 0 3 HEXDIG, Cat dcolon ls32, Cat (Ch 32 32) (Cat port ha_end)],
        [Rep 0 3 HEXDIG, Ch 58 58, Rep 0 3 h16_colon, h16, Cat dcolon ls32, Cat (Ch 32 32) (Cat
        port ha_end)], [Rep 0 3 HEXDIG, Cat dcolon h16, Cat (Ch 32 32) (Cat port ha_end)], [Rep 0
        3 HEXDIG, Ch 58 58, Rep 0 4 h16_colon, h16, Cat dcolon h16, Cat (Ch 32 32) (Cat port
        ha_end)], [Rep 0 3 HEXDIG, dcolon, Cat (Ch 32 32) (Cat port ha_end)], [Rep 0 3 HEXDIG, Ch
        58 58, Rep 0 5 h16_colon, h16, dcolon, Cat (Ch 32 32) (Cat port ha_end)]], [], [[Cat (Ch
        46 46) (Cat dec_octet (Cat (Ch 46 46) (Cat dec_octet (Cat (Ch 46 46) dec_octet)))), Ch 32
        32], [DIGIT, Cat (Ch 46 46) (Cat dec_octet (Cat (Ch 46 46) (Cat dec_octet (Cat (Ch 46 46)
        dec_octet)))), Ch 32 32], [Cat (Ch 48 52) DIGIT, Cat (Ch 46 46) (Cat dec_octet (Cat (Ch 46
        46) (Cat dec_octet (Cat (Ch 46 46) dec_octet)))), Ch 32 32], [Cat (Ch 53 53) (Ch 48 53),
        Cat (Ch 46 46) (Cat dec_octet (Cat (Ch 46 46) (Cat dec_octet (Cat (Ch 46 46)
        dec_octet)))), Ch 32 32], [Rep 0 3 HEXDIG, Ch 58 58, Rep 5 5 h16_colon, ls32, Ch 32 32],
        [Rep 0 3 HEXDIG, Cat dcolon (Cat (Rep 4 4 h16_colon) ls32), Ch 32 32], [Rep 0 3 HEXDIG,
        Cat dcolon (Cat (Rep 3 3 h16_colon) ls32), Ch 32 32], [Rep 0 3 HEXDIG, Ch 58 58, h16, Cat
        dcolon (Cat (Rep 3 3 h16_colon) ls32), Ch 32 32], [Rep 0 3 HEXDIG, Cat dcolon (Cat (Rep 2
        2 h16_colon) ls32), Ch 32 32], [Rep 0 3 HEXDIG, Ch 58 58, Rep 0 1 h16_colon, h16, Cat
        dcolon (Cat (Rep 2 2 h16_colon) ls32), Ch 32 32], [Rep 0 3 HEXDIG, Cat dcolon (Cat
        h16_colon ls32), Ch 32 32], [Rep 0 3 HEXDIG, Ch 58 58, Rep 0 2 h16_colon, h16, Cat dcolon
        (Cat h16_colon ls32), Ch 32 32], [Rep 0 3 HEXDIG, Cat dcolon ls32, Ch 32 32], [Rep 0 3
        HEXDIG, Ch 58 58, Rep 0 3 h16_colon, h16, Cat dcolon ls32, Ch 32 32], [Rep 0 3 HEXDIG, Cat
        dcolon h16, Ch 32 32], [Rep 0 3 HEXDIG, Ch 58 58, Rep 0 4 h16_colon, h16, Cat dcolon h16,
        Ch 32 32], [Rep 0 3 HEXDIG, dcolon, Ch 32 32], [Rep 0 3 HEXDIG, Ch 58 58, Rep 0 5
        h16_colon, h16, dcolon, Ch 32 32]]]])
      else
      if s = 187 then ([-128, 46, 47, 48, 54, 58, 59, 65, 71, 97, 103], [[[], [], [[Cat (Ch 46 46)
        (Cat dec_octet (Cat (Ch 46 46) (Cat dec_octet (Cat (Ch 46 46) dec_octet)))), Cat (Ch 32
        32) port], [Ch 48 53, Cat (Ch 46 46) (Cat dec_octet (Cat (Ch 46 46) (Cat dec_octet (Cat
        (Ch 46 46) dec_octet)))), Cat (Ch 32 32) port], [Rep 0 2 HEXDIG, Ch 58 58, Rep 5 5
        h16_colon, ls32, Cat (Ch 32 32) port], [Rep 0 2 HEXDIG, Cat dcolon (Cat (Rep 4 4
        h16_colon) ls32), Cat (Ch 32 32) port], [Rep 0 2 HEXDIG, Cat dcolon (Cat (Rep 3 3
        h16_colon) ls32), Cat (Ch 32 32) port], [Rep 0 2 HEXDIG, Ch 58 58, h16, Cat dcolon (Cat
        (Rep 3 3 h16_colon) ls32), Cat (Ch 32 32) port], [Rep 0 2 HEXDIG, Cat dcolon (Cat (Rep 2 2
        h16_colon) ls32), Cat (Ch 32 32) port], [Rep 0 2 HEXDIG, Ch 58 58, Rep 0 1 h16_colon, h16,
        Cat dcolon (Cat (Rep 2 2 h16_colon) ls32), Cat (Ch 32 32) port], [Rep 0 2 HEXDIG, Cat
        dcolon (Cat h16_colon ls32), Cat (Ch 32 32) port], [Rep 0 2 HEXDIG, Ch 58 58, Rep 0 2
        h16_colon, h16, Cat dcolon (Cat h16_colon ls32), Cat (Ch 32 32) port], [Rep 0 2 HEXDIG,
        Cat dcolon ls32, Cat (Ch 32 32) port], [Rep 0 2 HEXDIG, Ch 58 58, Rep 0 3 h16_colon, h16,
        Cat dcolon ls32, Cat (Ch 32 32) port], [Rep 0 2 HEXDIG, Cat dcolon h16, Cat (Ch 32 32)
        port], [Rep 0 2 HEXDIG, Ch 58 58, Rep 0 4 h16_colon, h16, Cat dcolon h16, Cat (Ch 32 32)
        port], [Rep 0 2 HEXDIG, dcolon, Cat (Ch 32 32) port], [Rep 0 2 HEXDIG, Ch 58 58, Rep 0 5
        h16_colon, h16, dcolon, Cat (Ch 32 32) port]], [[Cat (Ch 46 46) (Cat dec_octet (Cat (Ch 46
        46) (Cat dec_octet (Cat (Ch 46 46) dec_octet)))), Cat (Ch 32 32) (Cat port ha_end)], [Ch
        48 53, Cat (Ch 46 46) (Cat dec_octet (Cat (Ch 46 46) (Cat dec_octet (Cat (Ch 46 46)
        dec_octet)))), Cat (Ch 32 32) (Cat port ha_end)], [Rep 0 2 HEXDIG, Ch 58 58, Rep 5 5
        h16_colon, ls32, Cat (Ch 32 32) (Cat port ha_end)], [Rep 0 2 HEXDIG, Cat dcolon (Cat (Rep
        4 4 h16_colon) ls32), Cat (Ch 32 32) (Cat port ha_end)], [Rep 0 2 HEXDIG, Cat dcolon (Cat
        (Rep 3 3 h16_colon) ls32), Cat (Ch 32 32) (Cat port ha_end)], [Rep 0 2 HEXDIG, Ch 58 58,
        h16, Cat dcolon (Cat (Rep 3 3 h16_colon) ls32), Cat (Ch 32 32) (Cat port ha_end)], [Rep 0
        2 HEXDIG, Cat dcolon (Cat (Rep 2 2 h16_colon) ls32), Cat (Ch 32 32) (Cat port ha_end)],
        [Rep 0 2 HEXDIG, Ch 58 58, Rep 0 1 h16_colon, h16, Cat dcolon (Cat (Rep 2 2 h16_colon)
        ls32), Cat (Ch 32 32) (Cat port ha_end)], [Rep 0 2 HEXDIG, Cat dcolon (Cat h16_colon
        ls32), Cat (Ch 32 32) (Cat port ha_end)], [Rep 0 2 HEXDIG, Ch 58 58, Rep 0 2 h16_colon,
        h16, Cat dcolon (Cat h16_colon ls32), Cat (Ch 32 32) (Cat port ha_end)], [Rep 0 2 HEXDIG,
        Cat dcolon ls32, Cat (Ch 32 32) (Cat port ha_end)], [Rep 0 2 HEXDIG, Ch 58 58, Rep 0 3
        h16_colon, h16, Cat dcolon ls32, Cat (Ch 32 32) (Cat port ha_end)], [Rep 0 2 HEXDIG, Cat
        dcolon h16, Cat (Ch 32 32) (Cat port ha_end)], [Rep 0 2 HEXDIG, Ch 58 58, Rep 0 4
        h16_colon, h16, Cat dcolon h16, Cat (Ch 32 32) (Cat port ha_end)], [Rep 0 2 HEXDIG,
        dcolon, Cat (Ch 32 32) (Cat port ha_end)], [Rep 0 2 HEXDIG, Ch 58 58, Rep 0 5 h16_colon,
        h16, dcolon, Cat (Ch 32 32) (Cat port ha_end)]], [], [[Cat (Ch 46 46) (Cat dec_octet (Cat
        (Ch 46 46) (Cat dec_octet (Cat (Ch 46 46) dec_octet)))), Ch 32 32], [Ch 48 53, Cat (Ch 46
        46) (Cat dec_octet (Cat (Ch 46 46) (Cat dec_octet (Cat (Ch 46 46) dec_octet)))), Ch 32
        32], [Rep 0 2 HEXDIG, Ch 58 58, Rep 5 5 h16_colon, ls32, Ch 32 32], [Rep 0 2 HEXDIG, Cat
        dcolon (Cat (Rep 4 4 h16_colon) ls32), Ch 32 32], [Rep 0 2 HEXDIG, Cat dcolon (Cat (Rep 3
        3 h16_colon) ls32), Ch 32 32], [Rep 0 2 HEXDIG, Ch 58 58, h16, Cat dcolon (Cat (Rep 3 3
        h16_colon) ls32), Ch 32 32], [Rep 0 2 HEXDIG, Cat dcolon (Cat (Rep 2 2 h16_colon) ls32),
        Ch 32 32], [Rep 0 2 HEXDIG, Ch 58 58, Rep 0 1 h16_colon, h16, Cat dcolon (Cat (Rep 2 2
        h16_colon) ls32), Ch 32 32], [Rep 0 2 HEXDIG, Cat dcolon (Cat h16_colon ls32), Ch 32 32],
        [Rep 0 2 HEXDIG, Ch 58 58, Rep 0 2 h16_colon, h16, Cat dcolon (Cat h16_colon ls32), Ch 32
        32], [Rep 0 2 HEXDIG, Cat dcolon ls32, Ch 32 32], [Rep 0 2 HEXDIG, Ch 58 58, Rep 0 3
        h16_colon, h16, Cat dcolon ls32, Ch 32 32], [Rep 0 2 HEXDIG, Cat dcolon h16, Ch 32 32],
        [Rep 0 2 HEXDIG, Ch 58 58, Rep 0 4 h16_colon, h16, Cat dcolon h16, Ch 32 32], [Rep 0 2
        HEXDIG, dcolon, Ch 32 32], [Rep 0 2 HEXDIG, Ch 58 58, Rep 0 5 h16_colon, h16, dcolon, Ch
        32 32]]]])
      else
      if s = 188 then ([-128, 46, 47, 48, 58, 59, 65, 71, 97, 103], [[[], [], [[Cat (Ch 46 46)
        (Cat dec_octet (Cat (Ch 46 46) (Cat dec_octet (Cat (Ch 46 46) dec_octet)))), Cat (Ch 32
        32) port], [Rep 0 2 HEXDIG, Ch 58 58, Rep 5 5 h16_colon, ls32, Cat (Ch 32 32) port], [Rep
        0 2 HEXDIG, Cat dcolon (Cat (Rep 4 4 h16_colon) ls32), Cat (Ch 32 32) port], [Rep 0 2
        HEXDIG, Cat dcolon (Cat (Rep 3 3 h16_colon) ls32), Cat (Ch 32 32) port], [Rep 0 2 HEXDIG,
        Ch 58 58, h16, Cat dcolon (Cat (Rep 3 3 h16_colon) ls32), Cat (Ch 32 32) port], [Rep 0 2
        HEXDIG, Cat dcolon (Cat (Rep 2 2 h16_colon) ls32), Cat (Ch 32 32) port], [Rep 0 2 HEXDIG,
        Ch 58 58, Rep 0 1 h16_colon, h16, Cat dcolon (Cat (Rep 2 2 h16_colon) ls32), Cat (Ch 32
        32) port], [Rep 0 2 HEXDIG, Cat dcolon (Cat h16_colon ls32), Cat (Ch 32 32) port], [Rep 0
        2 HEXDIG, Ch 58 58, Rep 0 2 h16_colon, h16, Cat dcolon (Cat h16_colon ls32), Cat (Ch 32
        32) port], [Rep 0 2 HEXDIG, Cat dcolon ls32, Cat (Ch 32 32) port], [Rep 0 2 HEXDIG, Ch 58
        58, Rep 0 3 h16_colon, h16, Cat dcolon ls32, Cat (Ch 32 32) port], [Rep 0 2 HEXDIG, Cat
        dcolon h16, Cat (Ch 32 32) port], [Rep 0 2 HEXDIG, Ch 58 58, Rep 0 4 h16_colon, h16, Cat
        dcolon h16, Cat (Ch 32 32) port], [Rep 0 2 HEXDIG, dcolon, Cat (Ch 32 32) port], [Rep 0 2
        HEXDIG, Ch 58 58, Rep 0 5 h16_colon, h16, dcolon, Cat (Ch 32 32) port]], [[Cat (Ch 46 46)
        (Cat dec_octet (Cat (Ch 46 46) (Cat dec_octet (Cat (Ch 46 46) dec_octet)))), Cat (Ch 32
        32) (Cat port ha_end)], [Rep 0 2 HEXDIG, Ch 58 58, Rep 5 5 h16_colon, ls32, Cat (Ch 32 32)
        (Cat port ha_end)], [Rep 0 2 HEXDIG, Cat dcolon (Cat (Rep 4 4 h16_colon) ls32), Cat (Ch 32
        32) (Cat port ha_end)], [Rep 0 2 HEXDIG, Cat dcolon (Cat (Rep 3 3 h16_colon) ls32), Cat
        (Ch 32 32) (Cat port ha_end)], [Rep 0 2 HEXDIG, Ch 58 58, h16, Cat dcolon (Cat (Rep 3 3
        h16_colon) ls32), Cat (Ch 32 32) (Cat port ha_end)], [Rep 0 2 HEXDIG, Cat dcolon (Cat (Rep
        2 2 h16_colon) ls32), Cat (Ch 32 32) (Cat port ha_end)], [Rep 0 2 HEXDIG, Ch 58 58, Rep 0
        1 h16_colon, h16, Cat dcolon (Cat (Rep 2 2 h16_colon) ls32), Cat (Ch 32 32) (Cat port
        ha_end)], [Rep 0 2 HEXDIG, Cat dcolon (Cat h16_colon ls32), Cat (Ch 32 32) (Cat port
        ha_end)], [Rep 0 2 HEXDIG, Ch 58 58, Rep 0 2 h16_colon, h16, Cat dcolon (Cat h16_colon
        ls32), Cat (Ch 32 32) (Cat port ha_end)], [Rep 0 2 HEXDIG, Cat dcolon ls32, Cat (Ch 32 32)
        (Cat port ha_end)], [Rep 0 2 HEXDIG, Ch 58 58, Rep 0 3 h16_colon, h16, Cat dcolon ls32,
        Cat (Ch 32 32) (Cat port ha_end)], [Rep 0 2 HEXDIG, Cat dcolon h16, Cat (Ch 32 32) (Cat
        port ha_end)], [Rep 0 2 HEXDIG, Ch 58 58, Rep 0 4 h16_colon, h16, Cat dcolon h16, Cat (Ch
        32 32) (Cat port ha_end)], [Rep 0 2 HEXDIG, dcolon, Cat (Ch 32 32) (Cat port ha_end)],
        [Rep 0 2 HEXDIG, Ch 58 58, Rep 0 5 h16_colon, h16, dcolon, Cat (Ch 32 32) (Cat port
        ha_end)]], [], [[Cat (Ch 46 46) (Cat dec_octet (Cat (Ch 46 46) (Cat dec_octet (Cat (Ch 46
        46) dec_octet)))), Ch 32 32], [Rep 0 2 HEXDIG, Ch 58 58, Rep 5 5 h16_colon, ls32, Ch 32
        32], [Rep 0 2 HEXDIG, Cat dcolon (Cat (Rep 4 4 h16_colon) ls32), Ch 32 32], [Rep 0 2
        HEXDIG, Cat dcolon (Cat (Rep 3 3 h16_colon) ls32), Ch 32 32], [Rep 0 2 HEXDIG, Ch 58 58,
        h16, Cat dcolon (Cat (Rep 3 3 h16_colon) ls32), Ch 32 32], [Rep 0 2 HEXDIG, Cat dcolon
        (Cat (Rep 2 2 h16_colon) ls32), Ch 32 32], [Rep 0 2 HEXDIG, Ch 58 58, Rep 0 1 h16_colon,
        h16, Cat dcolon (Cat (Rep 2 2 h16_colon) ls32), Ch 32 32], [Rep 0 2 HEXDIG, Cat dcolon
        (Cat h16_colon ls32), Ch 32 32], [Rep 0 2 HEXDIG, Ch 58 58, Rep 0 2 h16_colon, h16, Cat
        dcolon (Cat h16_colon ls32), Ch 32 32], [Rep 0 2 HEXDIG, Cat dcolon ls32, Ch 32 32], [Rep
        0 2 HEXDIG, Ch 58 58, Rep 0 3 h16_colon, h16, Cat dcolon ls32, Ch 32 32], [Rep 0 2 HEXDIG,
        Cat dcolon h16, Ch 32 32], [Rep 0 2 HEXDIG, Ch 58 58, Rep 0 4 h16_colon, h16, Cat dcolon
        h16, Ch 32 32], [Rep 0 2 HEXDIG, dcolon, Ch 32 32], [Rep 0 2 HEXDIG, Ch 58 58, Rep 0 5
        h16_colon, h16, dcolon, Ch 32 32]]]])
      else
      if s = 189 then ([-128, 46, 47, 48, 58, 59, 65, 71, 97, 103], [[[], [], [[Cat (Ch 46 46)
        (Cat dec_octet (Cat (Ch 46 46) (Cat dec_octet (Cat (Ch 46 46) dec_octet)))), Cat (Ch 32
        32) port], [DIGIT, Cat (Ch 46 46) (Cat dec_octet (Cat (Ch 46 46) (Cat dec_octet (Cat (Ch
        46 46) dec_octet)))), Cat (Ch 32 32) port], [Rep 0 3 HEXDIG, Ch 58 58, Rep 5 5 h16_colon,
        ls32, Cat (Ch 32 32) port], [Rep 0 3 HEXDIG, Cat dcolon (Cat (Rep 4 4 h16_colon) ls32),
        Cat (Ch 32 32) port], [Rep 0 3 HEXDIG, Cat dcolon (Cat (Rep 3 3 h16_colon) ls32), Cat (Ch
        32 32) port], [Rep 0 3 HEXDIG, Ch 58 58, h16, Cat dcolon (Cat (Rep 3 3 h16_colon) ls32),
        Cat (Ch 32 32) port], [Rep 0 3 HEXDIG, Cat dcolon (Cat (Rep 2 2 h16_colon) ls32), Cat (Ch
        32 32) port], [Rep 0 3 HEXDIG, Ch 58 58, Rep 0 1 h16_colon, h16, Cat dcolon (Cat (Rep 2 2
        h16_colon) ls32), Cat (Ch 32 32) port], [Rep 0 3 HEXDIG, Cat dcolon (Cat h16_colon ls32),
        Cat (Ch 32 32) port], [Rep 0 3 HEXDIG, Ch 58 58, Rep 0 2 h16_colon, h16, Cat dcolon (Cat
        h16_colon ls32), Cat (Ch 32 32) port], [Rep 0 3 HEXDIG, Cat dcolon ls32, Cat (Ch 32 32)
        port], [Rep 0 3 HEXDIG, Ch 58 58, Rep 0 3 h16_colon, h16, Cat dcolon ls32, Cat (Ch 32 32)
        port], [Rep 0 3 HEXDIG, Cat dcolon h16, Cat (Ch 32 32) port], [Rep 0 3 HEXDIG, Ch 58 58,
        Rep 0 4 h16_colon, h16, Cat dcolon h16, Cat (Ch 32 32) port], [Rep 0 3 HEXDIG, dcolon, Cat
        (Ch 32 32) port], [Rep 0 3 HEXDIG, Ch 58 58, Rep 0 5 h16_colon, h16, dcolon, Cat (Ch 32
        32) port]], [[Cat (Ch 46 46) (Cat dec_octet (Cat (Ch 46 46) (Cat dec_octet (Cat (Ch 46 46)
        dec_octet)))), Cat (Ch 32 32) (Cat port ha_end)], [DIGIT, Cat (Ch 46 46) (Cat dec_octet
        (Cat (Ch 46 46) (Cat dec_octet (Cat (Ch 46 46) dec_octet)))), Cat (Ch 32 32) (Cat port
        ha_end)], [Rep 0 3 HEXDIG, Ch 58 58, Rep 5 5 h16_colon, ls32, Cat (Ch 32 32) (Cat port
        ha_end)], [Rep 0 3 HEXDIG, Cat dcolon (Cat (Rep 4 4 h16_colon) ls32), Cat (Ch 32 32) (Cat
        port ha_end)], [Rep 0 3 HEXDIG, Cat dcolon (Cat (Rep 3 3 h16_colon) ls32), Cat (Ch 32 32)
        (Cat port ha_end)], [Rep 0 3 HEXDIG, Ch 58 58, h16, Cat dcolon (Cat (Rep 3 3 h16_colon)
        ls32), Cat (Ch 32 32) (Cat port ha_end)], [Rep 0 3 HEXDIG, Cat dcolon (Cat (Rep 2 2
        h16_colon) ls32), Cat (Ch 32 32) (Cat port ha_end)], [Rep 0 3 HEXDIG, Ch 58 58, Rep 0 1
        h16_colon, h16, Cat dcolon (Cat (Rep 2 2 h16_colon) ls32), Cat (Ch 32 32) (Cat port
        ha_end)], [Rep 0 3 HEXDIG, Cat dcolon (Cat h16_colon ls32), Cat (Ch 32 32) (Cat port
        ha_end)], [Rep 0 3 HEXDIG, Ch 58 58, Rep 0 2 h16_colon, h16, Cat dcolon (Cat h16_colon
        ls32), Cat (Ch 32 32) (Cat port ha_end)], [Rep 0 3 HEXDIG, Cat dcolon ls32, Cat (Ch 32 32)
        (Cat port ha_end)], [Rep 0 3 HEXDIG, Ch 58 58, Rep 0 3 h16_colon, h16, Cat dcolon ls32,
        Cat (Ch 32 32) (Cat port ha_end)], [Rep 0 3 HEXDIG, Cat dcolon h16, Cat (Ch 32 32) (Cat
        port ha_end)], [Rep 0 3 HEXDIG, Ch 58 58, Rep 0 4 h16_colon, h16, Cat dcolon h16, Cat (Ch
        32 32) (Cat port ha_end)], [Rep 0 3 HEXDIG, dcolon, Cat (Ch 32 32) (Cat port ha_end)],
        [Rep 0 3 HEXDIG, Ch 58 58, Rep 0 5 h16_colon, h16, dcolon, Cat (Ch 32 32) (Cat port
        ha_end)]], [], [[Cat (Ch 46 46) (Cat dec_octet (Cat (Ch 46 46) (Cat dec_octet (Cat (Ch 46
        46) dec_octet)))), Ch 32 32], [DIGIT, Cat (Ch 46 46) (Cat dec_octet (Cat (Ch 46 46) (Cat
        dec_octet (Cat (Ch 46 46) dec_octet)))), Ch 32 32], [Rep 0 3 HEXDIG, Ch 58 58, Rep 5 5
        h16_colon, ls32, Ch 32 32], [Rep 0 3 HEXDIG, Cat dcolon (Cat (Rep 4 4 h16_colon) ls32), Ch
        32 32], [Rep 0 3 HEXDIG, Cat dcolon (Cat (Rep 3 3 h16_colon) ls32), Ch 32 32], [Rep 0 3
        HEXDIG, Ch 58 58, h16, Cat dcolon (Cat (Rep 3 3 h16_colon) ls32), Ch 32 32], [Rep 0 3
        HEXDIG, Cat dcolon (Cat (Rep 2 2 h16_colon) ls32), Ch 32 32], [Rep 0 3 HEXDIG, Ch 58 58,
        Rep 0 1 h16_colon, h16, Cat dcolon (Cat (Rep 2 2 h16_colon) ls32), Ch 32 32], [Rep 0 3
        HEXDIG, Cat dcolon (Cat h16_colon ls32), Ch 32 32], [Rep 0 3 HEXDIG, Ch 58 58, Rep 0 2
        h16_colon, h16, Cat dcolon (Cat h16_colon ls32), Ch 32 32], [Rep 0 3 HEXDIG, Cat dcolon
        ls32, Ch 32 32], [Rep 0 3 HEXDIG, Ch 58 58, Rep 0 3 h16_colon, h16, Cat dcolon ls32, Ch 32
        32], [Rep 0 3 HEXDIG, Cat dcolon h16, Ch 32 32], [Rep 0 3 HEXDIG, Ch 58 58, Rep 0 4
        h16_colon, h16, Cat dcolon h16, Ch 32 32], [Rep 0 3 HEXDIG, dcolon, Ch 32 32], [Rep 0 3
        HEXDIG, Ch 58 58, Rep 0 5 h16_colon, h16, dcolon, Ch 32 32]]]])
      else
      if s = 190 then ([-128, 58, 59], [[[], [], [[Ch 58 58, Cat (Rep 5 5 h16_colon) ls32, Cat (Ch
        32 32) port], [Ch 58 58, Cat (Rep 4 4 h16_colon) ls32, Cat (Ch 32 32) port], [Ch 58 58,
        Cat (Rep 3 3 h16_colon) ls32, Cat (Ch 32 32) port], [Ch 58 58, Cat (Rep 2 2 h16_colon)
        ls32, Cat (Ch 32 32) port], [Ch 58 58, Cat h16_colon ls32, Cat (Ch 32 32) port], [Ch 58
        58, ls32, Cat (Ch 32 32) port], [Ch 58 58, h16, Cat (Ch 32 32) port], [Ch 58 58, Cat (Ch
        32 32) port]], [[Ch 58 58, Cat (Rep 5 5 h16_colon) ls32, Cat (Ch 32 32) (Cat port
        ha_end)], [Ch 58 58, Cat (Rep 4 4 h16_colon) ls32, Cat (Ch 32 32) (Cat port ha_end)], [Ch
        58 58, Cat (Rep 3 3 h16_colon) ls32, Cat (Ch 32 32) (Cat port ha_end)], [Ch 58 58, Cat
        (Rep 2 2 h16_colon) ls32, Cat (Ch 32 32) (Cat port ha_end)], [Ch 58 58, Cat h16_colon
        ls32, Cat (Ch 32 32) (Cat port ha_end)], [Ch 58 58, ls32, Cat (Ch 32 32) (Cat port
        ha_end)], [Ch 58 58, h16, Cat (Ch 32 32) (Cat port ha_end)], [Ch 58 58, Cat (Ch 32 32)
        (Cat port ha_end)]], [], [[Ch 58 58, Cat (Rep 5 5 h16_colon) ls32, Ch 32 32], [Ch 58 58,
        Cat (Rep 4 4 h16_colon) ls32, Ch 32 32], [Ch 58 58, Cat (Rep 3 3 h16_colon) ls32, Ch 32
        32], [Ch 58 58, Cat (Rep 2 2 h16_colon) ls32, Ch 32 32], [Ch 58 58, Cat h16_colon ls32, Ch
        32 32], [Ch 58 58, ls32, Ch 32 32], [Ch 58 58, h16, Ch 32 32], [Ch 58 58, Ch 32 32]]]])
      else
      if s = 191 then ([-128, 32, 33, 48, 49, 50, 51, 58, 65, 71, 97, 103], [[[], [], [[Cat (Rep 5
        5 h16_colon) ls32, Cat (Ch 32 32) port], [Cat (Rep 4 4 h16_colon) ls32, Cat (Ch 32 32)
        port], [Cat (Rep 3 3 h16_colon) ls32, Cat (Ch 32 32) port], [Cat (Rep 2 2 h16_colon) ls32,
        Cat (Ch 32 32) port], [Cat h16_colon ls32, Cat (Ch 32 32) port], [ls32, Cat (Ch 32 32)
        port], [h16, Cat (Ch 32 32) port], [Cat (Ch 32 32) port]], [[Cat (Rep 5 5 h16_colon) ls32,
        Cat (Ch 32 32) (Cat port ha_end)], [Cat (Rep 4 4 h16_colon) ls32, Cat (Ch 32 32) (Cat port
        ha_end)], [Cat (Rep 3 3 h16_colon) ls32, Cat (Ch 32 32) (Cat port ha_end)], [Cat (Rep 2 2
        h16_colon) ls32, Cat (Ch 32 32) (Cat port ha_end)], [Cat h16_colon ls32, Cat (Ch 32 32)
        (Cat port ha_end)], [ls32, Cat (Ch 32 32) (Cat port ha_end)], [h16, Cat (Ch 32 32) (Cat
        port ha_end)], [Cat (Ch 32 32) (Cat port ha_end)]], [], [[Cat (Rep 5 5 h16_colon) ls32, Ch
        32 32], [Cat (Rep 4 4 h16_colon) ls32, Ch 32 32], [Cat (Rep 3 3 h16_colon) ls32, Ch 32
        32], [Cat (Rep 2 2 h16_colon) ls32, Ch 32 32], [Cat h16_colon ls32, Ch 32 32], [ls32, Ch
        32 32], [h16, Ch 32 32], [Ch 32 32]]]])
      else
      ([-128, 32, 33, 46, 47, 48, 58, 59, 65, 71, 97, 103], [[[], [], [[Rep 0 3 HEXDIG, Ch 58 58,
        Rep 4 4 h16_colon, ls32, Cat (Ch 32 32) port], [Rep 0 3 HEXDIG, Ch 58 58, Rep 3 3
        h16_colon, ls32, Cat (Ch 32 32) port], [Rep 0 3 HEXDIG, Ch 58 58, Rep 2 2 h16_colon, ls32,
        Cat (Ch 32 32) port], [Rep 0 3 HEXDIG, Ch 58 58, h16_colon, ls32, Cat (Ch 32 32) port],
        [Rep 0 3 HEXDIG, Ch 58 58, ls32, Cat (Ch 32 32) port], [Rep 0 3 HEXDIG, Cat (Ch 58 58)
        h16, Cat (Ch 32 32) port], [Cat (Ch 46 46) (Cat dec_octet (Cat (Ch 46 46) (Cat dec_octet
        (Cat (Ch 46 46) dec_octet)))), Cat (Ch 32 32) port], [Rep 0 3 HEXDIG, Cat (Ch 32 32)
        port]], [[Rep 0 3 HEXDIG, Ch 58 58, Rep 4 4 h16_colon, ls32, Cat (Ch 32 32) (Cat port
        ha_end)], [Rep 0 3 HEXDIG, Ch 58 58, Rep 3 3 h16_colon, ls32, Cat (Ch 32 32) (Cat port
        ha_end)], [Rep 0 3 HEXDIG, Ch 58 58, Rep 2 2 h16_colon, ls32, Cat (Ch 32 32) (Cat port
        ha_end)], [Rep 0 3 HEXDIG, Ch 58 58, h16_colon, ls32, Cat (Ch 32 32) (Cat port ha_end)],
        [Rep 0 3 HEXDIG, Ch 58 58, ls32, Cat (Ch 32 32) (Cat port ha_end)], [Rep 0 3 HEXDIG, Cat
        (Ch 58 58) h16, Cat (Ch 32 32) (Cat port ha_end)], [Cat (Ch 46 46) (Cat dec_octet (Cat (Ch
        46 46) (Cat dec_octet (Cat (Ch 46 46) dec_octet)))), Cat (Ch 32 32) (Cat port ha_end)],
        [Rep 0 3 HEXDIG, Cat (Ch 32 32) (Cat port ha_end)]], [], [[Rep 0 3 HEXDIG, Ch 58 58, Rep 4
        4 h16_colon, ls32, Ch 32 32], [Rep 0 3 HEXDIG, Ch 58 58, Rep 3 3 h16_colon, ls32, Ch 32
        32], [Rep 0 3 HEXDIG, Ch 58 58, Rep 2 2 h16_colon, ls32, Ch 32 32], [Rep 0 3 HEXDIG, Ch 58
        58, h16_colon, ls32, Ch 32 32], [Rep 0 3 HEXDIG, Ch 58 58, ls32, Ch 32 32], [Rep 0 3
        HEXDIG, Cat (Ch 58 58) h16, Ch 32 32], [Cat (Ch 46 46) (Cat dec_octet (Cat (Ch 46 46) (Cat
        dec_octet (Cat (Ch 46 46) dec_octet)))), Ch 32 32], [Rep 0 3 HEXDIG, Ch 32 32]]]]))"

definition ha_expects_25 :: certificate where
  "ha_expects_25 s =
     (if s = 193 then ([-128, 32, 33, 48, 58, 59, 65, 71, 97, 103], [[[], [], [[Rep 0 2 HEXDIG, Ch
        58 58, Rep 4 4 h16_colon, ls32, Cat (Ch 32 32) port], [Rep 0 2 HEXDIG, Ch 58 58, Rep 3 3
        h16_colon, ls32, Cat (Ch 32 32) port], [Rep 0 2 HEXDIG, Ch 58 58, Rep 2 2 h16_colon, ls32,
        Cat (Ch 32 32) port], [Rep 0 2 HEXDIG, Ch 58 58, h16_colon, ls32, Cat (Ch 32 32) port],
        [Rep 0 2 HEXDIG, Ch 58 58, ls32, Cat (Ch 32 32) port], [Rep 0 2 HEXDIG, Cat (Ch 58 58)
        h16, Cat (Ch 32 32) port], [Rep 0 2 HEXDIG, Cat (Ch 32 32) port]], [[Rep 0 2 HEXDIG, Ch 58
        58, Rep 4 4 h16_colon, ls32, Cat (Ch 32 32) (Cat port ha_end)], [Rep 0 2 HEXDIG, Ch 58 58,
        Rep 3 3 h16_colon, ls32, Cat (Ch 32 32) (Cat port ha_end)], [Rep 0 2 HEXDIG, Ch 58 58, Rep
        2 2 h16_colon, ls32, Cat (Ch 32 32) (Cat port ha_end)], [Rep 0 2 HEXDIG, Ch 58 58,
        h16_colon, ls32, Cat (Ch 32 32) (Cat port ha_end)], [Rep 0 2 HEXDIG, Ch 58 58, ls32, Cat
        (Ch 32 32) (Cat port ha_end)], [Rep 0 2 HEXDIG, Cat (Ch 58 58) h16, Cat (Ch 32 32) (Cat
        port ha_end)], [Rep 0 2 HEXDIG, Cat (Ch 32 32) (Cat port ha_end)]], [], [[Rep 0 2 HEXDIG,
        Ch 58 58, Rep 4 4 h16_colon, ls32, Ch 32 32], [Rep 0 2 HEXDIG, Ch 58 58, Rep 3 3
        h16_colon, ls32, Ch 32 32], [Rep 0 2 HEXDIG, Ch 58 58, Rep 2 2 h16_colon, ls32, Ch 32 32],
        [Rep 0 2 HEXDIG, Ch 58 58, h16_colon, ls32, Ch 32 32], [Rep 0 2 HEXDIG, Ch 58 58, ls32, Ch
        32 32], [Rep 0 2 HEXDIG, Cat (Ch 58 58) h16, Ch 32 32], [Rep 0 2 HEXDIG, Ch 32 32]]]])
      else
      if s = 194 then ([-128, 32, 33, 48, 58, 59, 65, 71, 97, 103], [[[], [], [[Rep 0 1 HEXDIG, Ch
        58 58, Rep 4 4 h16_colon, ls32, Cat (Ch 32 32) port], [Rep 0 1 HEXDIG, Ch 58 58, Rep 3 3
        h16_colon, ls32, Cat (Ch 32 32) port], [Rep 0 1 HEXDIG, Ch 58 58, Rep 2 2 h16_colon, ls32,
        Cat (Ch 32 32) port], [Rep 0 1 HEXDIG, Ch 58 58, h16_colon, ls32, Cat (Ch 32 32) port],
        [Rep 0 1 HEXDIG, Ch 58 58, ls32, Cat (Ch 32 32) port], [Rep 0 1 HEXDIG, Cat (Ch 58 58)
        h16, Cat (Ch 32 32) port], [Rep 0 1 HEXDIG, Cat (Ch 32 32) port]], [[Rep 0 1 HEXDIG, Ch 58
        58, Rep 4 4 h16_colon, ls32, Cat (Ch 32 32) (Cat port ha_end)], [Rep 0 1 HEXDIG, Ch 58 58,
        Rep 3 3 h16_colon, ls32, Cat (Ch 32 32) (Cat port ha_end)], [Rep 0 1 HEXDIG, Ch 58 58, Rep
        2 2 h16_colon, ls32, Cat (Ch 32 32) (Cat port ha_end)], [Rep 0 1 HEXDIG, Ch 58 58,
        h16_colon, ls32, Cat (Ch 32 32) (Cat port ha_end)], [Rep 0 1 HEXDIG, Ch 58 58, ls32, Cat
        (Ch 32 32) (Cat port ha_end)], [Rep 0 1 HEXDIG, Cat (Ch 58 58) h16, Cat (Ch 32 32) (Cat
        port ha_end)], [Rep 0 1 HEXDIG, Cat (Ch 32 32) (Cat port ha_end)]], [], [[Rep 0 1 HEXDIG,
        Ch 58 58, Rep 4 4 h16_colon, ls32, Ch 32 32], [Rep 0 1 HEXDIG, Ch 58 58, Rep 3 3
        h16_colon, ls32, Ch 32 32], [Rep 0 1 HEXDIG, Ch 58 58, Rep 2 2 h16_colon, ls32, Ch 32 32],
        [Rep 0 1 HEXDIG, Ch 58 58, h16_colon, ls32, Ch 32 32], [Rep 0 1 HEXDIG, Ch 58 58, ls32, Ch
        32 32], [Rep 0 1 HEXDIG, Cat (Ch 58 58) h16, Ch 32 32], [Rep 0 1 HEXDIG, Ch 32 32]]]])
      else
      if s = 195 then ([-128, 32, 33, 58, 59], [[[], [], [[Ch 58 58, Rep 4 4 h16_colon, ls32, Cat
        (Ch 32 32) port], [Ch 58 58, Rep 3 3 h16_colon, ls32, Cat (Ch 32 32) port], [Ch 58 58, Rep
        2 2 h16_colon, ls32, Cat (Ch 32 32) port], [Ch 58 58, h16_colon, ls32, Cat (Ch 32 32)
        port], [Ch 58 58, ls32, Cat (Ch 32 32) port], [Cat (Ch 58 58) h16, Cat (Ch 32 32) port],
        [Cat (Ch 32 32) port]], [[Ch 58 58, Rep 4 4 h16_colon, ls32, Cat (Ch 32 32) (Cat port
        ha_end)], [Ch 58 58, Rep 3 3 h16_colon, ls32, Cat (Ch 32 32) (Cat port ha_end)], [Ch 58
        58, Rep 2 2 h16_colon, ls32, Cat (Ch 32 32) (Cat port ha_end)], [Ch 58 58, h16_colon,
        ls32, Cat (Ch 32 32) (Cat port ha_end)], [Ch 58 58, ls32, Cat (Ch 32 32) (Cat port
        ha_end)], [Cat (Ch 58 58) h16, Cat (Ch 32 32) (Cat port ha_end)], [Cat (Ch 32 32) (Cat
        port ha_end)]], [], [[Ch 58 58, Rep 4 4 h16_colon, ls32, Ch 32 32], [Ch 58 58, Rep 3 3
        h16_colon, ls32, Ch 32 32], [Ch 58 58, Rep 2 2 h16_colon, ls32, Ch 32 32], [Ch 58 58,
        h16_colon, ls32, Ch 32 32], [Ch 58 58, ls32, Ch 32 32], [Cat (Ch 58 58) h16, Ch 32 32],
        [Ch 32 32]]]])
      else
      if s = 196 then ([-128, 48, 49, 50, 51, 58, 65, 71, 97, 103], [[[], [], [[Rep 4 4 h16_colon,
        ls32, Cat (Ch 32 32) port], [Rep 3 3 h16_colon, ls32, Cat (Ch 32 32) port], [Rep 2 2
        h16_colon, ls32, Cat (Ch 32 32) port], [h16_colon, ls32, Cat (Ch 32 32) port], [ls32, Cat
        (Ch 32 32) port], [h16, Cat (Ch 32 32) port]], [[Rep 4 4 h16_colon, ls32, Cat (Ch 32 32)
        (Cat port ha_end)], [Rep 3 3 h16_colon, ls32, Cat (Ch 32 32) (Cat port ha_end)], [Rep 2 2
        h16_colon, ls32, Cat (Ch 32 32) (Cat port ha_end)], [h16_colon, ls32, Cat (Ch 32 32) (Cat
        port ha_end)], [ls32, Cat (Ch 32 32) (Cat port ha_end)], [h16, Cat (Ch 32 32) (Cat port
        ha_end)]], [], [[Rep 4 4 h16_colon, ls32, Ch 32 32], [Rep 3 3 h16_colon, ls32, Ch 32 32],
        [Rep 2 2 h16_colon, ls32, Ch 32 32], [h16_colon, ls32, Ch 32 32], [ls32, Ch 32 32], [h16,
        Ch 32 32]]]])
      else
      if s = 197 then ([-128, 32, 33, 46, 47, 48, 58, 59, 65, 71, 97, 103], [[[], [], [[Rep 0 3
        HEXDIG, Ch 58 58, Rep 4 4 h16_colon, ls32, Cat (Ch 32 32) port], [Rep 0 3 HEXDIG, Ch 58
        58, Rep 3 3 h16_colon, ls32, Cat (Ch 32 32) port], [Rep 0 3 HEXDIG, Ch 58 58, Rep 2 2
        h16_colon, ls32, Cat (Ch 32 32) port], [Rep 0 3 HEXDIG, Ch 58 58, h16_colon, ls32, Cat (Ch
        32 32) port], [Rep 0 3 HEXDIG, Ch 58 58, ls32, Cat (Ch 32 32) port], [Rep 0 3 HEXDIG, Cat
        (Ch 58 58) h16, Cat (Ch 32 32) port], [Cat (Ch 46 46) (Cat dec_octet (Cat (Ch 46 46) (Cat
        dec_octet (Cat (Ch 46 46) dec_octet)))), Cat (Ch 32 32) port], [DIGIT, Cat (Ch 46 46) (Cat
        dec_octet (Cat (Ch 46 46) (Cat dec_octet (Cat (Ch 46 46) dec_octet)))), Cat (Ch 32 32)
        port], [Rep 2 2 DIGIT, Cat (Ch 46 46) (Cat dec_octet (Cat (Ch 46 46) (Cat dec_octet (Cat
        (Ch 46 46) dec_octet)))), Cat (Ch 32 32) port], [Rep 0 3 HEXDIG, Cat (Ch 32 32) port]],
        [[Rep 0 3 HEXDIG, Ch 58 58, Rep 4 4 h16_colon, ls32, Cat (Ch 32 32) (Cat port ha_end)],
        [Rep 0 3 HEXDIG, Ch 58 58, Rep 3 3 h16_colon, ls32, Cat (Ch 32 32) (Cat port ha_end)],
        [Rep 0 3 HEXDIG, Ch 58 58, Rep 2 2 h16_colon, ls32, Cat (Ch 32 32) (Cat port ha_end)],
        [Rep 0 3 HEXDIG, Ch 58 58, h16_colon, ls32, Cat (Ch 32 32) (Cat port ha_end)], [Rep 0 3
        HEXDIG, Ch 58 58, ls32, Cat (Ch 32 32) (Cat port ha_end)], [Rep 0 3 HEXDIG, Cat (Ch 58 58)
        h16, Cat (Ch 32 32) (Cat port ha_end)], [Cat (Ch 46 46) (Cat dec_octet (Cat (Ch 46 46)
        (Cat dec_octet (Cat (Ch 46 46) dec_octet)))), Cat (Ch 32 32) (Cat port ha_end)], [DIGIT,
        Cat (Ch 46 46) (Cat dec_octet (Cat (Ch 46 46) (Cat dec_octet (Cat (Ch 46 46)
        dec_octet)))), Cat (Ch 32 32) (Cat port ha_end)], [Rep 2 2 DIGIT, Cat (Ch 46 46) (Cat
        dec_octet (Cat (Ch 46 46) (Cat dec_octet (Cat (Ch 46 46) dec_octet)))), Cat (Ch 32 32)
        (Cat port ha_end)], [Rep 0 3 HEXDIG, Cat (Ch 32 32) (Cat port ha_end)]], [], [[Rep 0 3
        HEXDIG, Ch 58 58, Rep 4 4 h16_colon, ls32, Ch 32 32], [Rep 0 3 HEXDIG, Ch 58 58, Rep 3 3
        h16_colon, ls32, Ch 32 32], [Rep 0 3 HEXDIG, Ch 58 58, Rep 2 2 h16_colon, ls32, Ch 32 32],
        [Rep 0 3 HEXDIG, Ch 58 58, h16_colon, ls32, Ch 32 32], [Rep 0 3 HEXDIG, Ch 58 58, ls32, Ch
        32 32], [Rep 0 3 HEXDIG, Cat (Ch 58 58) h16, Ch 32 32], [Cat (Ch 46 46) (Cat dec_octet
        (Cat (Ch 46 46) (Cat dec_octet (Cat (Ch 46 46) dec_octet)))), Ch 32 32], [DIGIT, Cat (Ch
        46 46) (Cat dec_octet (Cat (Ch 46 46) (Cat dec_octet (Cat (Ch 46 46) dec_octet)))), Ch 32
        32], [Rep 2 2 DIGIT, Cat (Ch 46 46) (Cat dec_octet (Cat (Ch 46 46) (Cat dec_octet (Cat (Ch
        46 46) dec_octet)))), Ch 32 32], [Rep 0 3 HEXDIG, Ch 32 32]]]])
      else
      if s = 198 then ([-128, 32, 33, 46, 47, 48, 58, 59, 65, 71, 97, 103], [[[], [], [[Rep 0 2
        HEXDIG, Ch 58 58, Rep 4 4 h16_colon, ls32, Cat (Ch 32 32) port], [Rep 0 2 HEXDIG, Ch 58
        58, Rep 3 3 h16_colon, ls32, Cat (Ch 32 32) port], [Rep 0 2 HEXDIG, Ch 58 58, Rep 2 2
        h16_colon, ls32, Cat (Ch 32 32) port], [Rep 0 2 HEXDIG, Ch 58 58, h16_colon, ls32, Cat (Ch
        32 32) port], [Rep 0 2 HEXDIG, Ch 58 58, ls32, Cat (Ch 32 32) port], [Rep 0 2 HEXDIG, Cat
        (Ch 58 58) h16, Cat (Ch 32 32) port], [Cat (Ch 46 46) (Cat dec_octet (Cat (Ch 46 46) (Cat
        dec_octet (Cat (Ch 46 46) dec_octet)))), Cat (Ch 32 32) port], [DIGIT, Cat (Ch 46 46) (Cat
        dec_octet (Cat (Ch 46 46) (Cat dec_octet (Cat (Ch 46 46) dec_octet)))), Cat (Ch 32 32)
        port], [Rep 0 2 HEXDIG, Cat (Ch 32 32) port]], [[Rep 0 2 HEXDIG, Ch 58 58, Rep 4 4
        h16_colon, ls32, Cat (Ch 32 32) (Cat port ha_end)], [Rep 0 2 HEXDIG, Ch 58 58, Rep 3 3
        h16_colon, ls32, Cat (Ch 32 32) (Cat port ha_end)], [Rep 0 2 HEXDIG, Ch 58 58, Rep 2 2
        h16_colon, ls32, Cat (Ch 32 32) (Cat port ha_end)], [Rep 0 2 HEXDIG, Ch 58 58, h16_colon,
        ls32, Cat (Ch 32 32) (Cat port ha_end)], [Rep 0 2 HEXDIG, Ch 58 58, ls32, Cat (Ch 32 32)
        (Cat port ha_end)], [Rep 0 2 HEXDIG, Cat (Ch 58 58) h16, Cat (Ch 32 32) (Cat port
        ha_end)], [Cat (Ch 46 46) (Cat dec_octet (Cat (Ch 46 46) (Cat dec_octet (Cat (Ch 46 46)
        dec_octet)))), Cat (Ch 32 32) (Cat port ha_end)], [DIGIT, Cat (Ch 46 46) (Cat dec_octet
        (Cat (Ch 46 46) (Cat dec_octet (Cat (Ch 46 46) dec_octet)))), Cat (Ch 32 32) (Cat port
        ha_end)], [Rep 0 2 HEXDIG, Cat (Ch 32 32) (Cat port ha_end)]], [], [[Rep 0 2 HEXDIG, Ch 58
        58, Rep 4 4 h16_colon, ls32, Ch 32 32], [Rep 0 2 HEXDIG, Ch 58 58, Rep 3 3 h16_colon,
        ls32, Ch 32 32], [Rep 0 2 HEXDIG, Ch 58 58, Rep 2 2 h16_colon, ls32, Ch 32 32], [Rep 0 2
        HEXDIG, Ch 58 58, h16_colon, ls32, Ch 32 32], [Rep 0 2 HEXDIG, Ch 58 58, ls32, Ch 32 32],
        [Rep 0 2 HEXDIG, Cat (Ch 58 58) h16, Ch 32 32], [Cat (Ch 46 46) (Cat dec_octet (Cat (Ch 46
        46) (Cat dec_octet (Cat (Ch 46 46) dec_octet)))), Ch 32 32], [DIGIT, Cat (Ch 46 46) (Cat
        dec_octet (Cat (Ch 46 46) (Cat dec_octet (Cat (Ch 46 46) dec_octet)))), Ch 32 32], [Rep 0
        2 HEXDIG, Ch 32 32]]]])
      else
      if s = 199 then ([-128, 32, 33, 46, 47, 48, 58, 59, 65, 71, 97, 103], [[[], [], [[Rep 0 1
        HEXDIG, Ch 58 58, Rep 4 4 h16_colon, ls32, Cat (Ch 32 32) port], [Rep 0 1 HEXDIG, Ch 58
        58, Rep 3 3 h16_colon, ls32, Cat (Ch 32 32) port], [Rep 0 1 HEXDIG, Ch 58 58, Rep 2 2
        h16_colon, ls32, Cat (Ch 32 32) port], [Rep 0 1 HEXDIG, Ch 58 58, h16_colon, ls32, Cat (Ch
        32 32) port], [Rep 0 1 HEXDIG, Ch 58 58, ls32, Cat (Ch 32 32) port], [Rep 0 1 HEXDIG, Cat
        (Ch 58 58) h16, Cat (Ch 32 32) port], [Cat (Ch 46 46) (Cat dec_octet (Cat (Ch 46 46) (Cat
        dec_octet (Cat (Ch 46 46) dec_octet)))), Cat (Ch 32 32) port], [Rep 0 1 HEXDIG, Cat (Ch 32
        32) port]], [[Rep 0 1 HEXDIG, Ch 58 58, Rep 4 4 h16_colon, ls32, Cat (Ch 32 32) (Cat port
        ha_end)], [Rep 0 1 HEXDIG, Ch 58 58, Rep 3 3 h16_colon, ls32, Cat (Ch 32 32) (Cat port
        ha_end)], [Rep 0 1 HEXDIG, Ch 58 58, Rep 2 2 h16_colon, ls32, Cat (Ch 32 32) (Cat port
        ha_end)], [Rep 0 1 HEXDIG, Ch 58 58, h16_colon, ls32, Cat (Ch 32 32) (Cat port ha_end)],
        [Rep 0 1 HEXDIG, Ch 58 58, ls32, Cat (Ch 32 32) (Cat port ha_end)], [Rep 0 1 HEXDIG, Cat
        (Ch 58 58) h16, Cat (Ch 32 32) (Cat port ha_end)], [Cat (Ch 46 46) (Cat dec_octet (Cat (Ch
        46 46) (Cat dec_octet (Cat (Ch 46 46) dec_octet)))), Cat (Ch 32 32) (Cat port ha_end)],
        [Rep 0 1 HEXDIG, Cat (Ch 32 32) (Cat port ha_end)]], [], [[Rep 0 1 HEXDIG, Ch 58 58, Rep 4
        4 h16_colon, ls32, Ch 32 32], [Rep 0 1 HEXDIG, Ch 58 58, Rep 3 3 h16_colon, ls32, Ch 32
        32], [Rep 0 1 HEXDIG, Ch 58 58, Rep 2 2 h16_colon, ls32, Ch 32 32], [Rep 0 1 HEXDIG, Ch 58
        58, h16_colon, ls32, Ch 32 32], [Rep 0 1 HEXDIG, Ch 58 58, ls32, Ch 32 32], [Rep 0 1
        HEXDIG, Cat (Ch 58 58) h16, Ch 32 32], [Cat (Ch 46 46) (Cat dec_octet (Cat (Ch 46 46) (Cat
        dec_octet (Cat (Ch 46 46) dec_octet)))), Ch 32 32], [Rep 0 1 HEXDIG, Ch 32 32]]]])
      else
      ([-128, 32, 33, 46, 47, 48, 53, 54, 58, 59, 65, 71, 97, 103], [[[], [], [[Rep 0 3 HEXDIG, Ch
        58 58, Rep 4 4 h16_colon, ls32, Cat (Ch 32 32) port], [Rep 0 3 HEXDIG, Ch 58 58, Rep 3 3
        h16_colon, ls32, Cat (Ch 32 32) port], [Rep 0 3 HEXDIG, Ch 58 58, Rep 2 2 h16_colon, ls32,
        Cat (Ch 32 32) port], [Rep 0 3 HEXDIG, Ch 58 58, h16_colon, ls32, Cat (Ch 32 32) port],
        [Rep 0 3 HEXDIG, Ch 58 58, ls32, Cat (Ch 32 32) port], [Rep 0 3 HEXDIG, Cat (Ch 58 58)
        h16, Cat (Ch 32 32) port], [Cat (Ch 46 46) (Cat dec_octet (Cat (Ch 46 46) (Cat dec_octet
        (Cat (Ch 46 46) dec_octet)))), Cat (Ch 32 32) port], [DIGIT, Cat (Ch 46 46) (Cat dec_octet
        (Cat (Ch 46 46) (Cat dec_octet (Cat (Ch 46 46) dec_octet)))), Cat (Ch 32 32) port], [Cat
        (Ch 48 52) DIGIT, Cat (Ch 46 46) (Cat dec_octet (Cat (Ch 46 46) (Cat dec_octet (Cat (Ch 46
        46) dec_octet)))), Cat (Ch 32 32) port], [Cat (Ch 53 53) (Ch 48 53), Cat (Ch 46 46) (Cat
        dec_octet (Cat (Ch 46 46) (Cat dec_octet (Cat (Ch 46 46) dec_octet)))), Cat (Ch 32 32)
        port], [Rep 0 3 HEXDIG, Cat (Ch 32 32) port]], [[Rep 0 3 HEXDIG, Ch 58 58, Rep 4 4
        h16_colon, ls32, Cat (Ch 32 32) (Cat port ha_end)], [Rep 0 3 HEXDIG, Ch 58 58, Rep 3 3
        h16_colon, ls32, Cat (Ch 32 32) (Cat port ha_end)], [Rep 0 3 HEXDIG, Ch 58 58, Rep 2 2
        h16_colon, ls32, Cat (Ch 32 32) (Cat port ha_end)], [Rep 0 3 HEXDIG, Ch 58 58, h16_colon,
        ls32, Cat (Ch 32 32) (Cat port ha_end)], [Rep 0 3 HEXDIG, Ch 58 58, ls32, Cat (Ch 32 32)
        (Cat port ha_end)], [Rep 0 3 HEXDIG, Cat (Ch 58 58) h16, Cat (Ch 32 32) (Cat port
        ha_end)], [Cat (Ch 46 46) (Cat dec_octet (Cat (Ch 46 46) (Cat dec_octet (Cat (Ch 46 46)
        dec_octet)))), Cat (Ch 32 32) (Cat port ha_end)], [DIGIT, Cat (Ch 46 46) (Cat dec_octet
        (Cat (Ch 46 46) (Cat dec_octet (Cat (Ch 46 46) dec_octet)))), Cat (Ch 32 32) (Cat port
        ha_end)], [Cat (Ch 48 52) DIGIT, Cat (Ch 46 46) (Cat dec_octet (Cat (Ch 46 46) (Cat
        dec_octet (Cat (Ch 46 46) dec_octet)))), Cat (Ch 32 32) (Cat port ha_end)], [Cat (Ch 53
        53) (Ch 48 53), Cat (Ch 46 46) (Cat dec_octet (Cat (Ch 46 46) (Cat dec_octet (Cat (Ch 46
        46) dec_octet)))), Cat (Ch 32 32) (Cat port ha_end)], [Rep 0 3 HEXDIG, Cat (Ch 32 32) (Cat
        port ha_end)]], [], [[Rep 0 3 HEXDIG, Ch 58 58, Rep 4 4 h16_colon, ls32, Ch 32 32], [Rep 0
        3 HEXDIG, Ch 58 58, Rep 3 3 h16_colon, ls32, Ch 32 32], [Rep 0 3 HEXDIG, Ch 58 58, Rep 2 2
        h16_colon, ls32, Ch 32 32], [Rep 0 3 HEXDIG, Ch 58 58, h16_colon, ls32, Ch 32 32], [Rep 0
        3 HEXDIG, Ch 58 58, ls32, Ch 32 32], [Rep 0 3 HEXDIG, Cat (Ch 58 58) h16, Ch 32 32], [Cat
        (Ch 46 46) (Cat dec_octet (Cat (Ch 46 46) (Cat dec_octet (Cat (Ch 46 46) dec_octet)))), Ch
        32 32], [DIGIT, Cat (Ch 46 46) (Cat dec_octet (Cat (Ch 46 46) (Cat dec_octet (Cat (Ch 46
        46) dec_octet)))), Ch 32 32], [Cat (Ch 48 52) DIGIT, Cat (Ch 46 46) (Cat dec_octet (Cat
        (Ch 46 46) (Cat dec_octet (Cat (Ch 46 46) dec_octet)))), Ch 32 32], [Cat (Ch 53 53) (Ch 48
        53), Cat (Ch 46 46) (Cat dec_octet (Cat (Ch 46 46) (Cat dec_octet (Cat (Ch 46 46)
        dec_octet)))), Ch 32 32], [Rep 0 3 HEXDIG, Ch 32 32]]]]))"

definition ha_expects_26 :: certificate where
  "ha_expects_26 s =
     (if s = 201 then ([-128, 32, 33, 46, 47, 48, 54, 58, 59, 65, 71, 97, 103], [[[], [], [[Rep 0
        2 HEXDIG, Ch 58 58, Rep 4 4 h16_colon, ls32, Cat (Ch 32 32) port], [Rep 0 2 HEXDIG, Ch 58
        58, Rep 3 3 h16_colon, ls32, Cat (Ch 32 32) port], [Rep 0 2 HEXDIG, Ch 58 58, Rep 2 2
        h16_colon, ls32, Cat (Ch 32 32) port], [Rep 0 2 HEXDIG, Ch 58 58, h16_colon, ls32, Cat (Ch
        32 32) port], [Rep 0 2 HEXDIG, Ch 58 58, ls32, Cat (Ch 32 32) port], [Rep 0 2 HEXDIG, Cat
        (Ch 58 58) h16, Cat (Ch 32 32) port], [Cat (Ch 46 46) (Cat dec_octet (Cat (Ch 46 46) (Cat
        dec_octet (Cat (Ch 46 46) dec_octet)))), Cat (Ch 32 32) port], [Ch 48 53, Cat (Ch 46 46)
        (Cat dec_octet (Cat (Ch 46 46) (Cat dec_octet (Cat (Ch 46 46) dec_octet)))), Cat (Ch 32
        32) port], [Rep 0 2 HEXDIG, Cat (Ch 32 32) port]], [[Rep 0 2 HEXDIG, Ch 58 58, Rep 4 4
        h16_colon, ls32, Cat (Ch 32 32) (Cat port ha_end)], [Rep 0 2 HEXDIG, Ch 58 58, Rep 3 3
        h16_colon, ls32, Cat (Ch 32 32) (Cat port ha_end)], [Rep 0 2 HEXDIG, Ch 58 58, Rep 2 2
        h16_colon, ls32, Cat (Ch 32 32) (Cat port ha_end)], [Rep 0 2 HEXDIG, Ch 58 58, h16_colon,
        ls32, Cat (Ch 32 32) (Cat port ha_end)], [Rep 0 2 HEXDIG, Ch 58 58, ls32, Cat (Ch 32 32)
        (Cat port ha_end)], [Rep 0 2 HEXDIG, Cat (Ch 58 58) h16, Cat (Ch 32 32) (Cat port
        ha_end)], [Cat (Ch 46 46) (Cat dec_octet (Cat (Ch 46 46) (Cat dec_octet (Cat (Ch 46 46)
        dec_octet)))), Cat (Ch 32 32) (Cat port ha_end)], [Ch 48 53, Cat (Ch 46 46) (Cat dec_octet
        (Cat (Ch 46 46) (Cat dec_octet (Cat (Ch 46 46) dec_octet)))), Cat (Ch 32 32) (Cat port
        ha_end)], [Rep 0 2 HEXDIG, Cat (Ch 32 32) (Cat port ha_end)]], [], [[Rep 0 2 HEXDIG, Ch 58
        58, Rep 4 4 h16_colon, ls32, Ch 32 32], [Rep 0 2 HEXDIG, Ch 58 58, Rep 3 3 h16_colon,
        ls32, Ch 32 32], [Rep 0 2 HEXDIG, Ch 58 58, Rep 2 2 h16_colon, ls32, Ch 32 32], [Rep 0 2
        HEXDIG, Ch 58 58, h16_colon, ls32, Ch 32 32], [Rep 0 2 HEXDIG, Ch 58 58, ls32, Ch 32 32],
        [Rep 0 2 HEXDIG, Cat (Ch 58 58) h16, Ch 32 32], [Cat (Ch 46 46) (Cat dec_octet (Cat (Ch 46
        46) (Cat dec_octet (Cat (Ch 46 46) dec_octet)))), Ch 32 32], [Ch 48 53, Cat (Ch 46 46)
        (Cat dec_octet (Cat (Ch 46 46) (Cat dec_octet (Cat (Ch 46 46) dec_octet)))), Ch 32 32],
        [Rep 0 2 HEXDIG, Ch 32 32]]]])
      else
      if s = 202 then ([-128, 32, 33, 46, 47, 48, 58, 59, 65, 71, 97, 103], [[[], [], [[Rep 0 2
        HEXDIG, Ch 58 58, Rep 4 4 h16_colon, ls32, Cat (Ch 32 32) port], [Rep 0 2 HEXDIG, Ch 58
        58, Rep 3 3 h16_colon, ls32, Cat (Ch 32 32) port], [Rep 0 2 HEXDIG, Ch 58 58, Rep 2 2
        h16_colon, ls32, Cat (Ch 32 32) port], [Rep 0 2 HEXDIG, Ch 58 58, h16_colon, ls32, Cat (Ch
        32 32) port], [Rep 0 2 HEXDIG, Ch 58 58, ls32, Cat (Ch 32 32) port], [Rep 0 2 HEXDIG, Cat
        (Ch 58 58) h16, Cat (Ch 32 32) port], [Cat (Ch 46 46) (Cat dec_octet (Cat (Ch 46 46) (Cat
        dec_octet (Cat (Ch 46 46) dec_octet)))), Cat (Ch 32 32) port], [Rep 0 2 HEXDIG, Cat (Ch 32
        32) port]], [[Rep 0 2 HEXDIG, Ch 58 58, Rep 4 4 h16_colon, ls32, Cat (Ch 32 32) (Cat port
        ha_end)], [Rep 0 2 HEXDIG, Ch 58 58, Rep 3 3 h16_colon, ls32, Cat (Ch 32 32) (Cat port
        ha_end)], [Rep 0 2 HEXDIG, Ch 58 58, Rep 2 2 h16_colon, ls32, Cat (Ch 32 32) (Cat port
        ha_end)], [Rep 0 2 HEXDIG, Ch 58 58, h16_colon, ls32, Cat (Ch 32 32) (Cat port ha_end)],
        [Rep 0 2 HEXDIG, Ch 58 58, ls32, Cat (Ch 32 32) (Cat port ha_end)], [Rep 0 2 HEXDIG, Cat
        (Ch 58 58) h16, Cat (Ch 32 32) (Cat port ha_end)], [Cat (Ch 46 46) (Cat dec_octet (Cat (Ch
        46 46) (Cat dec_octet (Cat (Ch 46 46) dec_octet)))), Cat (Ch 32 32) (Cat port ha_end)],
        [Rep 0 2 HEXDIG, Cat (Ch 32 32) (Cat port ha_end)]], [], [[Rep 0 2 HEXDIG, Ch 58 58, Rep 4
        4 h16_colon, ls32, Ch 32 32], [Rep 0 2 HEXDIG, Ch 58 58, Rep 3 3 h16_colon, ls32, Ch 32
        32], [Rep 0 2 HEXDIG, Ch 58 58, Rep 2 2 h16_colon, ls32, Ch 32 32], [Rep 0 2 HEXDIG, Ch 58
        58, h16_colon, ls32, Ch 32 32], [Rep 0 2 HEXDIG, Ch 58 58, ls32, Ch 32 32], [Rep 0 2
        HEXDIG, Cat (Ch 58 58) h16, Ch 32 32], [Cat (Ch 46 46) (Cat dec_octet (Cat (Ch 46 46) (Cat
        dec_octet (Cat (Ch 46 46) dec_octet)))), Ch 32 32], [Rep 0 2 HEXDIG, Ch 32 32]]]])
      else
      if s = 203 then ([-128, 32, 33, 46, 47, 48, 58, 59, 65, 71, 97, 103], [[[], [], [[Rep 0 3
        HEXDIG, Ch 58 58, Rep 4 4 h16_colon, ls32, Cat (Ch 32 32) port], [Rep 0 3 HEXDIG, Ch 58
        58, Rep 3 3 h16_colon, ls32, Cat (Ch 32 32) port], [Rep 0 3 HEXDIG, Ch 58 58, Rep 2 2
        h16_colon, ls32, Cat (Ch 32 32) port], [Rep 0 3 HEXDIG, Ch 58 58, h16_colon, ls32, Cat (Ch
        32 32) port], [Rep 0 3 HEXDIG, Ch 58 58, ls32, Cat (Ch 32 32) port], [Rep 0 3 HEXDIG, Cat
        (Ch 58 58) h16, Cat (Ch 32 32) port], [Cat (Ch 46 46) (Cat dec_octet (Cat (Ch 46 46) (Cat
        dec_octet (Cat (Ch 46 46) dec_octet)))), Cat (Ch 32 32) port], [DIGIT, Cat (Ch 46 46) (Cat
        dec_octet (Cat (Ch 46 46) (Cat dec_octet (Cat (Ch 46 46) dec_octet)))), Cat (Ch 32 32)
        port], [Rep 0 3 HEXDIG, Cat (Ch 32 32) port]], [[Rep 0 3 HEXDIG, Ch 58 58, Rep 4 4
        h16_colon, ls32, Cat (Ch 32 32) (Cat port ha_end)], [Rep 0 3 HEXDIG, Ch 58 58, Rep 3 3
        h16_colon, ls32, Cat (Ch 32 32) (Cat port ha_end)], [Rep 0 3 HEXDIG, Ch 58 58, Rep 2 2
        h16_colon, ls32, Cat (Ch 32 32) (Cat port ha_end)], [Rep 0 3 HEXDIG, Ch 58 58, h16_colon,
        ls32, Cat (Ch 32 32) (Cat port ha_end)], [Rep 0 3 HEXDIG, Ch 58 58, ls32, Cat (Ch 32 32)
        (Cat port ha_end)], [Rep 0 3 HEXDIG, Cat (Ch 58 58) h16, Cat (Ch 32 32) (Cat port
        ha_end)], [Cat (Ch 46 46) (Cat dec_octet (Cat (Ch 46 46) (Cat dec_octet (Cat (Ch 46 46)
        dec_octet)))), Cat (Ch 32 32) (Cat port ha_end)], [DIGIT, Cat (Ch 46 46) (Cat dec_octet
        (Cat (Ch 46 46) (Cat dec_octet (Cat (Ch 46 46) dec_octet)))), Cat (Ch 32 32) (Cat port
        ha_end)], [Rep 0 3 HEXDIG, Cat (Ch 32 32) (Cat port ha_end)]], [], [[Rep 0 3 HEXDIG, Ch 58
        58, Rep 4 4 h16_colon, ls32, Ch 32 32], [Rep 0 3 HEXDIG, Ch 58 58, Rep 3 3 h16_colon,
        ls32, Ch 32 32], [Rep 0 3 HEXDIG, Ch 58 58, Rep 2 2 h16_colon, ls32, Ch 32 32], [Rep 0 3
        HEXDIG, Ch 58 58, h16_colon, ls32, Ch 32 32], [Rep 0 3 HEXDIG, Ch 58 58, ls32, Ch 32 32],
        [Rep 0 3 HEXDIG, Cat (Ch 58 58) h16, Ch 32 32], [Cat (Ch 46 46) (Cat dec_octet (Cat (Ch 46
        46) (Cat dec_octet (Cat (Ch 46 46) dec_octet)))), Ch 32 32], [DIGIT, Cat (Ch 46 46) (Cat
        dec_octet (Cat (Ch 46 46) (Cat dec_octet (Cat (Ch 46 46) dec_octet)))), Ch 32 32], [Rep 0
        3 HEXDIG, Ch 32 32]]]])
      else
      if s = 204 then ([-128, 32, 33, 48, 58, 59, 65, 71, 97, 103], [[[], [], [[Rep 0 3 HEXDIG, Ch
        58 58, Rep 4 4 h16_colon, ls32, Cat (Ch 32 32) port], [Rep 0 3 HEXDIG, Ch 58 58, Rep 3 3
        h16_colon, ls32, Cat (Ch 32 32) port], [Rep 0 3 HEXDIG, Ch 58 58, Rep 2 2 h16_colon, ls32,
        Cat (Ch 32 32) port], [Rep 0 3 HEXDIG, Ch 58 58, h16_colon, ls32, Cat (Ch 32 32) port],
        [Rep 0 3 HEXDIG, Ch 58 58, ls32, Cat (Ch 32 32) port], [Rep 0 3 HEXDIG, Cat (Ch 58 58)
        h16, Cat (Ch 32 32) port], [Rep 0 3 HEXDIG, Cat (Ch 32 32) port]], [[Rep 0 3 HEXDIG, Ch 58
        58, Rep 4 4 h16_colon, ls32, Cat (Ch 32 32) (Cat port ha_end)], [Rep 0 3 HEXDIG, Ch 58 58,
        Rep 3 3 h16_colon, ls32, Cat (Ch 32 32) (Cat port ha_end)], [Rep 0 3 HEXDIG, Ch 58 58, Rep
        2 2 h16_colon, ls32, Cat (Ch 32 32) (Cat port ha_end)], [Rep 0 3 HEXDIG, Ch 58 58,
        h16_colon, ls32, Cat (Ch 32 32) (Cat port ha_end)], [Rep 0 3 HEXDIG, Ch 58 58, ls32, Cat
        (Ch 32 32) (Cat port ha_end)], [Rep 0 3 HEXDIG, Cat (Ch 58 58) h16, Cat (Ch 32 32) (Cat
        port ha_end)], [Rep 0 3 HEXDIG, Cat (Ch 32 32) (Cat port ha_end)]], [], [[Rep 0 3 HEXDIG,
        Ch 58 58, Rep 4 4 h16_colon, ls32, Ch 32 32], [Rep 0 3 HEXDIG, Ch 58 58, Rep 3 3
        h16_colon, ls32, Ch 32 32], [Rep 0 3 HEXDIG, Ch 58 58, Rep 2 2 h16_colon, ls32, Ch 32 32],
        [Rep 0 3 HEXDIG, Ch 58 58, h16_colon, ls32, Ch 32 32], [Rep 0 3 HEXDIG, Ch 58 58, ls32, Ch
        32 32], [Rep 0 3 HEXDIG, Cat (Ch 58 58) h16, Ch 32 32], [Rep 0 3 HEXDIG, Ch 32 32]]]])
      else
      if s = 205 then ([-128, 48, 58, 59, 65, 71, 97, 103], [[[], [], [[Rep 0 3 HEXDIG, Ch 58 58,
        Rep 5 5 h16_colon, ls32, Cat (Ch 32 32) port], [Rep 0 3 HEXDIG, Cat dcolon (Cat (Rep 4 4
        h16_colon) ls32), Cat (Ch 32 32) port], [Rep 0 3 HEXDIG, Cat dcolon (Cat (Rep 3 3
        h16_colon) ls32), Cat (Ch 32 32) port], [Rep 0 3 HEXDIG, Ch 58 58, h16, Cat dcolon (Cat
        (Rep 3 3 h16_colon) ls32), Cat (Ch 32 32) port], [Rep 0 3 HEXDIG, Cat dcolon (Cat (Rep 2 2
        h16_colon) ls32), Cat (Ch 32 32) port], [Rep 0 3 HEXDIG, Ch 58 58, Rep 0 1 h16_colon, h16,
        Cat dcolon (Cat (Rep 2 2 h16_colon) ls32), Cat (Ch 32 32) port], [Rep 0 3 HEXDIG, Cat
        dcolon (Cat h16_colon ls32), Cat (Ch 32 32) port], [Rep 0 3 HEXDIG, Ch 58 58, Rep 0 2
        h16_colon, h16, Cat dcolon (Cat h16_colon ls32), Cat (Ch 32 32) port], [Rep 0 3 HEXDIG,
        Cat dcolon ls32, Cat (Ch 32 32) port], [Rep 0 3 HEXDIG, Ch 58 58, Rep 0 3 h16_colon, h16,
        Cat dcolon ls32, Cat (Ch 32 32) port], [Rep 0 3 HEXDIG, Cat dcolon h16, Cat (Ch 32 32)
        port], [Rep 0 3 HEXDIG, Ch 58 58, Rep 0 4 h16_colon, h16, Cat dcolon h16, Cat (Ch 32 32)
        port], [Rep 0 3 HEXDIG, dcolon, Cat (Ch 32 32) port], [Rep 0 3 HEXDIG, Ch 58 58, Rep 0 5
        h16_colon, h16, dcolon, Cat (Ch 32 32) port]], [[Rep 0 3 HEXDIG, Ch 58 58, Rep 5 5
        h16_colon, ls32, Cat (Ch 32 32) (Cat port ha_end)], [Rep 0 3 HEXDIG, Cat dcolon (Cat (Rep
        4 4 h16_colon) ls32), Cat (Ch 32 32) (Cat port ha_end)], [Rep 0 3 HEXDIG, Cat dcolon (Cat
        (Rep 3 3 h16_colon) ls32), Cat (Ch 32 32) (Cat port ha_end)], [Rep 0 3 HEXDIG, Ch 58 58,
        h16, Cat dcolon (Cat (Rep 3 3 h16_colon) ls32), Cat (Ch 32 32) (Cat port ha_end)], [Rep 0
        3 HEXDIG, Cat dcolon (Cat (Rep 2 2 h16_colon) ls32), Cat (Ch 32 32) (Cat port ha_end)],
        [Rep 0 3 HEXDIG, Ch 58 58, Rep 0 1 h16_colon, h16, Cat dcolon (Cat (Rep 2 2 h16_colon)
        ls32), Cat (Ch 32 32) (Cat port ha_end)], [Rep 0 3 HEXDIG, Cat dcolon (Cat h16_colon
        ls32), Cat (Ch 32 32) (Cat port ha_end)], [Rep 0 3 HEXDIG, Ch 58 58, Rep 0 2 h16_colon,
        h16, Cat dcolon (Cat h16_colon ls32), Cat (Ch 32 32) (Cat port ha_end)], [Rep 0 3 HEXDIG,
        Cat dcolon ls32, Cat (Ch 32 32) (Cat port ha_end)], [Rep 0 3 HEXDIG, Ch 58 58, Rep 0 3
        h16_colon, h16, Cat dcolon ls32, Cat (Ch 32 32) (Cat port ha_end)], [Rep 0 3 HEXDIG, Cat
        dcolon h16, Cat (Ch 32 32) (Cat port ha_end)], [Rep 0 3 HEXDIG, Ch 58 58, Rep 0 4
        h16_colon, h16, Cat dcolon h16, Cat (Ch 32 32) (Cat port ha_end)], [Rep 0 3 HEXDIG,
        dcolon, Cat (Ch 32 32) (Cat port ha_end)], [Rep 0 3 HEXDIG, Ch 58 58, Rep 0 5 h16_colon,
        h16, dcolon, Cat (Ch 32 32) (Cat port ha_end)]], [], [[Rep 0 3 HEXDIG, Ch 58 58, Rep 5 5
        h16_colon, ls32, Ch 32 32], [Rep 0 3 HEXDIG, Cat dcolon (Cat (Rep 4 4 h16_colon) ls32), Ch
        32 32], [Rep 0 3 HEXDIG, Cat dcolon (Cat (Rep 3 3 h16_colon) ls32), Ch 32 32], [Rep 0 3
        HEXDIG, Ch 58 58, h16, Cat dcolon (Cat (Rep 3 3 h16_colon) ls32), Ch 32 32], [Rep 0 3
        HEXDIG, Cat dcolon (Cat (Rep 2 2 h16_colon) ls32), Ch 32 32], [Rep 0 3 HEXDIG, Ch 58 58,
        Rep 0 1 h16_colon, h16, Cat dcolon (Cat (Rep 2 2 h16_colon) ls32), Ch 32 32], [Rep 0 3
        HEXDIG, Cat dcolon (Cat h16_colon ls32), Ch 32 32], [Rep 0 3 HEXDIG, Ch 58 58, Rep 0 2
        h16_colon, h16, Cat dcolon (Cat h16_colon ls32), Ch 32 32], [Rep 0 3 HEXDIG, Cat dcolon
        ls32, Ch 32 32], [Rep 0 3 HEXDIG, Ch 58 58, Rep 0 3 h16_colon, h16, Cat dcolon ls32, Ch 32
        32], [Rep 0 3 HEXDIG, Cat dcolon h16, Ch 32 32], [Rep 0 3 HEXDIG, Ch 58 58, Rep 0 4
        h16_colon, h16, Cat dcolon h16, Ch 32 32], [Rep 0 3 HEXDIG, dcolon, Ch 32 32], [Rep 0 3
        HEXDIG, Ch 58 58, Rep 0 5 h16_colon, h16, dcolon, Ch 32 32]]]])
      else
      if s = 206 then ([-128, 32, 33, 48, 58], [[[[Ch 32 32], [DIGIT, Ch 32 32], [Rep 2 2 DIGIT,
        Ch 32 32]], [], [[ha_to_port], [DIGIT, ha_to_port], [Rep 2 2 DIGIT, ha_to_port]],
        [[ha_to_end], [DIGIT, ha_to_end], [Rep 2 2 DIGIT, ha_to_end]], [], [[ha_address2], [DIGIT,
        ha_address2], [Rep 2 2 DIGIT, ha_address2]]]])
      else
      if s = 207 then ([-128, 32, 33, 48, 58], [[[[Ch 32 32], [DIGIT, Ch 32 32]], [],
        [[ha_to_port], [DIGIT, ha_to_port]], [[ha_to_end], [DIGIT, ha_to_end]], [],
        [[ha_address2], [DIGIT, ha_address2]]]])
      else
      ([-128, 32, 33, 48, 53, 54, 58], [[[[Ch 32 32], [DIGIT, Ch 32 32], [Cat (Ch 48 52) DIGIT, Ch
        32 32], [Cat (Ch 53 53) (Ch 48 53), Ch 32 32]], [], [[ha_to_port], [DIGIT, ha_to_port],
        [Cat (Ch 48 52) DIGIT, ha_to_port], [Cat (Ch 53 53) (Ch 48 53), ha_to_port]],
        [[ha_to_end], [DIGIT, ha_to_end], [Cat (Ch 48 52) DIGIT, ha_to_end], [Cat (Ch 53 53) (Ch
        48 53), ha_to_end]], [], [[ha_address2], [DIGIT, ha_address2], [Cat (Ch 48 52) DIGIT,
        ha_address2], [Cat (Ch 53 53) (Ch 48 53), ha_address2]]]]))"

definition ha_expects_27 :: certificate where
  "ha_expects_27 s =
     (if s = 209 then ([-128, 32, 33, 48, 54], [[[[Ch 32 32], [Ch 48 53, Ch 32 32]], [],
        [[ha_to_port], [Ch 48 53, ha_to_port]], [[ha_to_end], [Ch 48 53, ha_to_end]], [],
        [[ha_address2], [Ch 48 53, ha_address2]]]])
      else
      if s = 210 then ([-128, 46, 47, 48, 58], [[[[Cat (Ch 46 46) dec_octet, Ch 32 32], [DIGIT,
        Cat (Ch 46 46) dec_octet, Ch 32 32], [Rep 2 2 DIGIT, Cat (Ch 46 46) dec_octet, Ch 32 32]],
        [], [[Cat (Ch 46 46) dec_octet, ha_to_port], [DIGIT, Cat (Ch 46 46) dec_octet,
        ha_to_port], [Rep 2 2 DIGIT, Cat (Ch 46 46) dec_octet, ha_to_port]], [[Cat (Ch 46 46)
        dec_octet, ha_to_end], [DIGIT, Cat (Ch 46 46) dec_octet, ha_to_end], [Rep 2 2 DIGIT, Cat
        (Ch 46 46) dec_octet, ha_to_end]], [], [[Cat (Ch 46 46) dec_octet, ha_address2], [DIGIT,
        Cat (Ch 46 46) dec_octet, ha_address2], [Rep 2 2 DIGIT, Cat (Ch 46 46) dec_octet,
        ha_address2]]]])
      else
      if s = 211 then ([-128, 46, 47, 48, 58], [[[[Cat (Ch 46 46) dec_octet, Ch 32 32], [DIGIT,
        Cat (Ch 46 46) dec_octet, Ch 32 32]], [], [[Cat (Ch 46 46) dec_octet, ha_to_port], [DIGIT,
        Cat (Ch 46 46) dec_octet, ha_to_port]], [[Cat (Ch 46 46) dec_octet, ha_to_end], [DIGIT,
        Cat (Ch 46 46) dec_octet, ha_to_end]], [], [[Cat (Ch 46 46) dec_octet, ha_address2],
        [DIGIT, Cat (Ch 46 46) dec_octet, ha_address2]]]])
      else
      if s = 212 then ([-128, 46, 47, 48, 53, 54, 58], [[[[Cat (Ch 46 46) dec_octet, Ch 32 32],
        [DIGIT, Cat (Ch 46 46) dec_octet, Ch 32 32], [Cat (Ch 48 52) DIGIT, Cat (Ch 46 46)
        dec_octet, Ch 32 32], [Cat (Ch 53 53) (Ch 48 53), Cat (Ch 46 46) dec_octet, Ch 32 32]],
        [], [[Cat (Ch 46 46) dec_octet, ha_to_port], [DIGIT, Cat (Ch 46 46) dec_octet,
        ha_to_port], [Cat (Ch 48 52) DIGIT, Cat (Ch 46 46) dec_octet, ha_to_port], [Cat (Ch 53 53)
        (Ch 48 53), Cat (Ch 46 46) dec_octet, ha_to_port]], [[Cat (Ch 46 46) dec_octet,
        ha_to_end], [DIGIT, Cat (Ch 46 46) dec_octet, ha_to_end], [Cat (Ch 48 52) DIGIT, Cat (Ch
        46 46) dec_octet, ha_to_end], [Cat (Ch 53 53) (Ch 48 53), Cat (Ch 46 46) dec_octet,
        ha_to_end]], [], [[Cat (Ch 46 46) dec_octet, ha_address2], [DIGIT, Cat (Ch 46 46)
        dec_octet, ha_address2], [Cat (Ch 48 52) DIGIT, Cat (Ch 46 46) dec_octet, ha_address2],
        [Cat (Ch 53 53) (Ch 48 53), Cat (Ch 46 46) dec_octet, ha_address2]]]])
      else
      if s = 213 then ([-128, 46, 47, 48, 54], [[[[Cat (Ch 46 46) dec_octet, Ch 32 32], [Ch 48 53,
        Cat (Ch 46 46) dec_octet, Ch 32 32]], [], [[Cat (Ch 46 46) dec_octet, ha_to_port], [Ch 48
        53, Cat (Ch 46 46) dec_octet, ha_to_port]], [[Cat (Ch 46 46) dec_octet, ha_to_end], [Ch 48
        53, Cat (Ch 46 46) dec_octet, ha_to_end]], [], [[Cat (Ch 46 46) dec_octet, ha_address2],
        [Ch 48 53, Cat (Ch 46 46) dec_octet, ha_address2]]]])
      else
      if s = 214 then ([-128, 46, 47, 48, 58], [[[[Cat (Ch 46 46) (Cat dec_octet (Cat (Ch 46 46)
        dec_octet)), Ch 32 32], [DIGIT, Cat (Ch 46 46) (Cat dec_octet (Cat (Ch 46 46) dec_octet)),
        Ch 32 32], [Rep 2 2 DIGIT, Cat (Ch 46 46) (Cat dec_octet (Cat (Ch 46 46) dec_octet)), Ch
        32 32]], [], [[Cat (Ch 46 46) (Cat dec_octet (Cat (Ch 46 46) dec_octet)), ha_to_port],
        [DIGIT, Cat (Ch 46 46) (Cat dec_octet (Cat (Ch 46 46) dec_octet)), ha_to_port], [Rep 2 2
        DIGIT, Cat (Ch 46 46) (Cat dec_octet (Cat (Ch 46 46) dec_octet)), ha_to_port]], [[Cat (Ch
        46 46) (Cat dec_octet (Cat (Ch 46 46) dec_octet)), ha_to_end], [DIGIT, Cat (Ch 46 46) (Cat
        dec_octet (Cat (Ch 46 46) dec_octet)), ha_to_end], [Rep 2 2 DIGIT, Cat (Ch 46 46) (Cat
        dec_octet (Cat (Ch 46 46) dec_octet)), ha_to_end]], [], [[Cat (Ch 46 46) (Cat dec_octet
        (Cat (Ch 46 46) dec_octet)), ha_address2], [DIGIT, Cat (Ch 46 46) (Cat dec_octet (Cat (Ch
        46 46) dec_octet)), ha_address2], [Rep 2 2 DIGIT, Cat (Ch 46 46) (Cat dec_octet (Cat (Ch
        46 46) dec_octet)), ha_address2]]]])
      else
      if s = 215 then ([-128, 46, 47, 48, 58], [[[[Cat (Ch 46 46) (Cat dec_octet (Cat (Ch 46 46)
        dec_octet)), Ch 32 32], [DIGIT, Cat (Ch 46 46) (Cat dec_octet (Cat (Ch 46 46) dec_octet)),
        Ch 32 32]], [], [[Cat (Ch 46 46) (Cat dec_octet (Cat (Ch 46 46) dec_octet)), ha_to_port],
        [DIGIT, Cat (Ch 46 46) (Cat dec_octet (Cat (Ch 46 46) dec_octet)), ha_to_port]], [[Cat (Ch
        46 46) (Cat dec_octet (Cat (Ch 46 46) dec_octet)), ha_to_end], [DIGIT, Cat (Ch 46 46) (Cat
        dec_octet (Cat (Ch 46 46) dec_octet)), ha_to_end]], [], [[Cat (Ch 46 46) (Cat dec_octet
        (Cat (Ch 46 46) dec_octet)), ha_address2], [DIGIT, Cat (Ch 46 46) (Cat dec_octet (Cat (Ch
        46 46) dec_octet)), ha_address2]]]])
      else
      ([-128, 46, 47, 48, 53, 54, 58], [[[[Cat (Ch 46 46) (Cat dec_octet (Cat (Ch 46 46)
        dec_octet)), Ch 32 32], [DIGIT, Cat (Ch 46 46) (Cat dec_octet (Cat (Ch 46 46) dec_octet)),
        Ch 32 32], [Cat (Ch 48 52) DIGIT, Cat (Ch 46 46) (Cat dec_octet (Cat (Ch 46 46)
        dec_octet)), Ch 32 32], [Cat (Ch 53 53) (Ch 48 53), Cat (Ch 46 46) (Cat dec_octet (Cat (Ch
        46 46) dec_octet)), Ch 32 32]], [], [[Cat (Ch 46 46) (Cat dec_octet (Cat (Ch 46 46)
        dec_octet)), ha_to_port], [DIGIT, Cat (Ch 46 46) (Cat dec_octet (Cat (Ch 46 46)
        dec_octet)), ha_to_port], [Cat (Ch 48 52) DIGIT, Cat (Ch 46 46) (Cat dec_octet (Cat (Ch 46
        46) dec_octet)), ha_to_port], [Cat (Ch 53 53) (Ch 48 53), Cat (Ch 46 46) (Cat dec_octet
        (Cat (Ch 46 46) dec_octet)), ha_to_port]], [[Cat (Ch 46 46) (Cat dec_octet (Cat (Ch 46 46)
        dec_octet)), ha_to_end], [DIGIT, Cat (Ch 46 46) (Cat dec_octet (Cat (Ch 46 46)
        dec_octet)), ha_to_end], [Cat (Ch 48 52) DIGIT, Cat (Ch 46 46) (Cat dec_octet (Cat (Ch 46
        46) dec_octet)), ha_to_end], [Cat (Ch 53 53) (Ch 48 53), Cat (Ch 46 46) (Cat dec_octet
        (Cat (Ch 46 46) dec_octet)), ha_to_end]], [], [[Cat (Ch 46 46) (Cat dec_octet (Cat (Ch 46
        46) dec_octet)), ha_address2], [DIGIT, Cat (Ch 46 46) (Cat dec_octet (Cat (Ch 46 46)
        dec_octet)), ha_address2], [Cat (Ch 48 52) DIGIT, Cat (Ch 46 46) (Cat dec_octet (Cat (Ch
        46 46) dec_octet)), ha_address2], [Cat (Ch 53 53) (Ch 48 53), Cat (Ch 46 46) (Cat
        dec_octet (Cat (Ch 46 46) dec_octet)), ha_address2]]]]))"

definition ha_expects_28 :: certificate where
  "ha_expects_28 s =
     (if s = 217 then ([-128, 46, 47, 48, 54], [[[[Cat (Ch 46 46) (Cat dec_octet (Cat (Ch 46 46)
        dec_octet)), Ch 32 32], [Ch 48 53, Cat (Ch 46 46) (Cat dec_octet (Cat (Ch 46 46)
        dec_octet)), Ch 32 32]], [], [[Cat (Ch 46 46) (Cat dec_octet (Cat (Ch 46 46) dec_octet)),
        ha_to_port], [Ch 48 53, Cat (Ch 46 46) (Cat dec_octet (Cat (Ch 46 46) dec_octet)),
        ha_to_port]], [[Cat (Ch 46 46) (Cat dec_octet (Cat (Ch 46 46) dec_octet)), ha_to_end], [Ch
        48 53, Cat (Ch 46 46) (Cat dec_octet (Cat (Ch 46 46) dec_octet)), ha_to_end]], [], [[Cat
        (Ch 46 46) (Cat dec_octet (Cat (Ch 46 46) dec_octet)), ha_address2], [Ch 48 53, Cat (Ch 46
        46) (Cat dec_octet (Cat (Ch 46 46) dec_octet)), ha_address2]]]])
      else
      if s = 218 then ([-128, 48, 58, 59, 65, 71, 97, 103], [[[], [[Rep 0 2 HEXDIG, Ch 58 58, Rep
        5 5 h16_colon, ls32, Ch 32 32], [Rep 0 2 HEXDIG, Cat dcolon (Cat (Rep 4 4 h16_colon)
        ls32), Ch 32 32], [Rep 0 2 HEXDIG, Cat dcolon (Cat (Rep 3 3 h16_colon) ls32), Ch 32 32],
        [Rep 0 2 HEXDIG, Ch 58 58, h16, Cat dcolon (Cat (Rep 3 3 h16_colon) ls32), Ch 32 32], [Rep
        0 2 HEXDIG, Cat dcolon (Cat (Rep 2 2 h16_colon) ls32), Ch 32 32], [Rep 0 2 HEXDIG, Ch 58
        58, Rep 0 1 h16_colon, h16, Cat dcolon (Cat (Rep 2 2 h16_colon) ls32), Ch 32 32], [Rep 0 2
        HEXDIG, Cat dcolon (Cat h16_colon ls32), Ch 32 32], [Rep 0 2 HEXDIG, Ch 58 58, Rep 0 2
        h16_colon, h16, Cat dcolon (Cat h16_colon ls32), Ch 32 32], [Rep 0 2 HEXDIG, Cat dcolon
        ls32, Ch 32 32], [Rep 0 2 HEXDIG, Ch 58 58, Rep 0 3 h16_colon, h16, Cat dcolon ls32, Ch 32
        32], [Rep 0 2 HEXDIG, Cat dcolon h16, Ch 32 32], [Rep 0 2 HEXDIG, Ch 58 58, Rep 0 4
        h16_colon, h16, Cat dcolon h16, Ch 32 32], [Rep 0 2 HEXDIG, dcolon, Ch 32 32], [Rep 0 2
        HEXDIG, Ch 58 58, Rep 0 5 h16_colon, h16, dcolon, Ch 32 32]], [[Rep 0 2 HEXDIG, Ch 58 58,
        Rep 5 5 h16_colon, ls32, ha_to_port], [Rep 0 2 HEXDIG, Cat dcolon (Cat (Rep 4 4 h16_colon)
        ls32), ha_to_port], [Rep 0 2 HEXDIG, Cat dcolon (Cat (Rep 3 3 h16_colon) ls32),
        ha_to_port], [Rep 0 2 HEXDIG, Ch 58 58, h16, Cat dcolon (Cat (Rep 3 3 h16_colon) ls32),
        ha_to_port], [Rep 0 2 HEXDIG, Cat dcolon (Cat (Rep 2 2 h16_colon) ls32), ha_to_port], [Rep
        0 2 HEXDIG, Ch 58 58, Rep 0 1 h16_colon, h16, Cat dcolon (Cat (Rep 2 2 h16_colon) ls32),
        ha_to_port], [Rep 0 2 HEXDIG, Cat dcolon (Cat h16_colon ls32), ha_to_port], [Rep 0 2
        HEXDIG, Ch 58 58, Rep 0 2 h16_colon, h16, Cat dcolon (Cat h16_colon ls32), ha_to_port],
        [Rep 0 2 HEXDIG, Cat dcolon ls32, ha_to_port], [Rep 0 2 HEXDIG, Ch 58 58, Rep 0 3
        h16_colon, h16, Cat dcolon ls32, ha_to_port], [Rep 0 2 HEXDIG, Cat dcolon h16,
        ha_to_port], [Rep 0 2 HEXDIG, Ch 58 58, Rep 0 4 h16_colon, h16, Cat dcolon h16,
        ha_to_port], [Rep 0 2 HEXDIG, dcolon, ha_to_port], [Rep 0 2 HEXDIG, Ch 58 58, Rep 0 5
        h16_colon, h16, dcolon, ha_to_port]], [[Rep 0 2 HEXDIG, Ch 58 58, Rep 5 5 h16_colon, ls32,
        ha_to_end], [Rep 0 2 HEXDIG, Cat dcolon (Cat (Rep 4 4 h16_colon) ls32), ha_to_end], [Rep 0
        2 HEXDIG, Cat dcolon (Cat (Rep 3 3 h16_colon) ls32), ha_to_end], [Rep 0 2 HEXDIG, Ch 58
        58, h16, Cat dcolon (Cat (Rep 3 3 h16_colon) ls32), ha_to_end], [Rep 0 2 HEXDIG, Cat
        dcolon (Cat (Rep 2 2 h16_colon) ls32), ha_to_end], [Rep 0 2 HEXDIG, Ch 58 58, Rep 0 1
        h16_colon, h16, Cat dcolon (Cat (Rep 2 2 h16_colon) ls32), ha_to_end], [Rep 0 2 HEXDIG,
        Cat dcolon (Cat h16_colon ls32), ha_to_end], [Rep 0 2 HEXDIG, Ch 58 58, Rep 0 2 h16_colon,
        h16, Cat dcolon (Cat h16_colon ls32), ha_to_end], [Rep 0 2 HEXDIG, Cat dcolon ls32,
        ha_to_end], [Rep 0 2 HEXDIG, Ch 58 58, Rep 0 3 h16_colon, h16, Cat dcolon ls32,
        ha_to_end], [Rep 0 2 HEXDIG, Cat dcolon h16, ha_to_end], [Rep 0 2 HEXDIG, Ch 58 58, Rep 0
        4 h16_colon, h16, Cat dcolon h16, ha_to_end], [Rep 0 2 HEXDIG, dcolon, ha_to_end], [Rep 0
        2 HEXDIG, Ch 58 58, Rep 0 5 h16_colon, h16, dcolon, ha_to_end]], [], [[Rep 0 2 HEXDIG, Ch
        58 58, Rep 5 5 h16_colon, ls32, ha_address2], [Rep 0 2 HEXDIG, Cat dcolon (Cat (Rep 4 4
        h16_colon) ls32), ha_address2], [Rep 0 2 HEXDIG, Cat dcolon (Cat (Rep 3 3 h16_colon)
        ls32), ha_address2], [Rep 0 2 HEXDIG, Ch 58 58, h16, Cat dcolon (Cat (Rep 3 3 h16_colon)
        ls32), ha_address2], [Rep 0 2 HEXDIG, Cat dcolon (Cat (Rep 2 2 h16_colon) ls32),
        ha_address2], [Rep 0 2 HEXDIG, Ch 58 58, Rep 0 1 h16_colon, h16, Cat dcolon (Cat (Rep 2 2
        h16_colon) ls32), ha_address2], [Rep 0 2 HEXDIG, Cat dcolon (Cat h16_colon ls32),
        ha_address2], [Rep 0 2 HEXDIG, Ch 58 58, Rep 0 2 h16_colon, h16, Cat dcolon (Cat h16_colon
        ls32), ha_address2], [Rep 0 2 HEXDIG, Cat dcolon ls32, ha_address2], [Rep 0 2 HEXDIG, Ch
        58 58, Rep 0 3 h16_colon, h16, Cat dcolon ls32, ha_address2], [Rep 0 2 HEXDIG, Cat dcolon
        h16, ha_address2], [Rep 0 2 HEXDIG, Ch 58 58, Rep 0 4 h16_colon, h16, Cat dcolon h16,
        ha_address2], [Rep 0 2 HEXDIG, dcolon, ha_address2], [Rep 0 2 HEXDIG, Ch 58 58, Rep 0 5
        h16_colon, h16, dcolon, ha_address2]]]])
      else
      if s = 219 then ([-128, 48, 58, 59, 65, 71, 97, 103], [[[], [[Rep 0 1 HEXDIG, Ch 58 58, Rep
        5 5 h16_colon, ls32, Ch 32 32], [Rep 0 1 HEXDIG, Cat dcolon (Cat (Rep 4 4 h16_colon)
        ls32), Ch 32 32], [Rep 0 1 HEXDIG, Cat dcolon (Cat (Rep 3 3 h16_colon) ls32), Ch 32 32],
        [Rep 0 1 HEXDIG, Ch 58 58, h16, Cat dcolon (Cat (Rep 3 3 h16_colon) ls32), Ch 32 32], [Rep
        0 1 HEXDIG, Cat dcolon (Cat (Rep 2 2 h16_colon) ls32), Ch 32 32], [Rep 0 1 HEXDIG, Ch 58
        58, Rep 0 1 h16_colon, h16, Cat dcolon (Cat (Rep 2 2 h16_colon) ls32), Ch 32 32], [Rep 0 1
        HEXDIG, Cat dcolon (Cat h16_colon ls32), Ch 32 32], [Rep 0 1 HEXDIG, Ch 58 58, Rep 0 2
        h16_colon, h16, Cat dcolon (Cat h16_colon ls32), Ch 32 32], [Rep 0 1 HEXDIG, Cat dcolon
        ls32, Ch 32 32], [Rep 0 1 HEXDIG, Ch 58 58, Rep 0 3 h16_colon, h16, Cat dcolon ls32, Ch 32
        32], [Rep 0 1 HEXDIG, Cat dcolon h16, Ch 32 32], [Rep 0 1 HEXDIG, Ch 58 58, Rep 0 4
        h16_colon, h16, Cat dcolon h16, Ch 32 32], [Rep 0 1 HEXDIG, dcolon, Ch 32 32], [Rep 0 1
        HEXDIG, Ch 58 58, Rep 0 5 h16_colon, h16, dcolon, Ch 32 32]], [[Rep 0 1 HEXDIG, Ch 58 58,
        Rep 5 5 h16_colon, ls32, ha_to_port], [Rep 0 1 HEXDIG, Cat dcolon (Cat (Rep 4 4 h16_colon)
        ls32), ha_to_port], [Rep 0 1 HEXDIG, Cat dcolon (Cat (Rep 3 3 h16_colon) ls32),
        ha_to_port], [Rep 0 1 HEXDIG, Ch 58 58, h16, Cat dcolon (Cat (Rep 3 3 h16_colon) ls32),
        ha_to_port], [Rep 0 1 HEXDIG, Cat dcolon (Cat (Rep 2 2 h16_colon) ls32), ha_to_port], [Rep
        0 1 HEXDIG, Ch 58 58, Rep 0 1 h16_colon, h16, Cat dcolon (Cat (Rep 2 2 h16_colon) ls32),
        ha_to_port], [Rep 0 1 HEXDIG, Cat dcolon (Cat h16_colon ls32), ha_to_port], [Rep 0 1
        HEXDIG, Ch 58 58, Rep 0 2 h16_colon, h16, Cat dcolon (Cat h16_colon ls32), ha_to_port],
        [Rep 0 1 HEXDIG, Cat dcolon ls32, ha_to_port], [Rep 0 1 HEXDIG, Ch 58 58, Rep 0 3
        h16_colon, h16, Cat dcolon ls32, ha_to_port], [Rep 0 1 HEXDIG, Cat dcolon h16,
        ha_to_port], [Rep 0 1 HEXDIG, Ch 58 58, Rep 0 4 h16_colon, h16, Cat dcolon h16,
        ha_to_port], [Rep 0 1 HEXDIG, dcolon, ha_to_port], [Rep 0 1 HEXDIG, Ch 58 58, Rep 0 5
        h16_colon, h16, dcolon, ha_to_port]], [[Rep 0 1 HEXDIG, Ch 58 58, Rep 5 5 h16_colon, ls32,
        ha_to_end], [Rep 0 1 HEXDIG, Cat dcolon (Cat (Rep 4 4 h16_colon) ls32), ha_to_end], [Rep 0
        1 HEXDIG, Cat dcolon (Cat (Rep 3 3 h16_colon) ls32), ha_to_end], [Rep 0 1 HEXDIG, Ch 58
        58, h16, Cat dcolon (Cat (Rep 3 3 h16_colon) ls32), ha_to_end], [Rep 0 1 HEXDIG, Cat
        dcolon (Cat (Rep 2 2 h16_colon) ls32), ha_to_end], [Rep 0 1 HEXDIG, Ch 58 58, Rep 0 1
        h16_colon, h16, Cat dcolon (Cat (Rep 2 2 h16_colon) ls32), ha_to_end], [Rep 0 1 HEXDIG,
        Cat dcolon (Cat h16_colon ls32), ha_to_end], [Rep 0 1 HEXDIG, Ch 58 58, Rep 0 2 h16_colon,
        h16, Cat dcolon (Cat h16_colon ls32), ha_to_end], [Rep 0 1 HEXDIG, Cat dcolon ls32,
        ha_to_end], [Rep 0 1 HEXDIG, Ch 58 58, Rep 0 3 h16_colon, h16, Cat dcolon ls32,
        ha_to_end], [Rep 0 1 HEXDIG, Cat dcolon h16, ha_to_end], [Rep 0 1 HEXDIG, Ch 58 58, Rep 0
        4 h16_colon, h16, Cat dcolon h16, ha_to_end], [Rep 0 1 HEXDIG, dcolon, ha_to_end], [Rep 0
        1 HEXDIG, Ch 58 58, Rep 0 5 h16_colon, h16, dcolon, ha_to_end]], [], [[Rep 0 1 HEXDIG, Ch
        58 58, Rep 5 5 h16_colon, ls32, ha_address2], [Rep 0 1 HEXDIG, Cat dcolon (Cat (Rep 4 4
        h16_colon) ls32), ha_address2], [Rep 0 1 HEXDIG, Cat dcolon (Cat (Rep 3 3 h16_colon)
        ls32), ha_address2], [Rep 0 1 HEXDIG, Ch 58 58, h16, Cat dcolon (Cat (Rep 3 3 h16_colon)
        ls32), ha_address2], [Rep 0 1 HEXDIG, Cat dcolon (Cat (Rep 2 2 h16_colon) ls32),
        ha_address2], [Rep 0 1 HEXDIG, Ch 58 58, Rep 0 1 h16_colon, h16, Cat dcolon (Cat (Rep 2 2
        h16_colon) ls32), ha_address2], [Rep 0 1 HEXDIG, Cat dcolon (Cat h16_colon ls32),
        ha_address2], [Rep 0 1 HEXDIG, Ch 58 58, Rep 0 2 h16_colon, h16, Cat dcolon (Cat h16_colon
        ls32), ha_address2], [Rep 0 1 HEXDIG, Cat dcolon ls32, ha_address2], [Rep 0 1 HEXDIG, Ch
        58 58, Rep 0 3 h16_colon, h16, Cat dcolon ls32, ha_address2], [Rep 0 1 HEXDIG, Cat dcolon
        h16, ha_address2], [Rep 0 1 HEXDIG, Ch 58 58, Rep 0 4 h16_colon, h16, Cat dcolon h16,
        ha_address2], [Rep 0 1 HEXDIG, dcolon, ha_address2], [Rep 0 1 HEXDIG, Ch 58 58, Rep 0 5
        h16_colon, h16, dcolon, ha_address2]]]])
      else
      if s = 220 then ([-128, 58, 59], [[[], [[Ch 58 58, Rep 5 5 h16_colon, ls32, Ch 32 32], [Cat
        dcolon (Cat (Rep 4 4 h16_colon) ls32), Ch 32 32], [Cat dcolon (Cat (Rep 3 3 h16_colon)
        ls32), Ch 32 32], [Ch 58 58, h16, Cat dcolon (Cat (Rep 3 3 h16_colon) ls32), Ch 32 32],
        [Cat dcolon (Cat (Rep 2 2 h16_colon) ls32), Ch 32 32], [Ch 58 58, Rep 0 1 h16_colon, h16,
        Cat dcolon (Cat (Rep 2 2 h16_colon) ls32), Ch 32 32], [Cat dcolon (Cat h16_colon ls32), Ch
        32 32], [Ch 58 58, Rep 0 2 h16_colon, h16, Cat dcolon (Cat h16_colon ls32), Ch 32 32],
        [Cat dcolon ls32, Ch 32 32], [Ch 58 58, Rep 0 3 h16_colon, h16, Cat dcolon ls32, Ch 32
        32], [Cat dcolon h16, Ch 32 32], [Ch 58 58, Rep 0 4 h16_colon, h16, Cat dcolon h16, Ch 32
        32], [dcolon, Ch 32 32], [Ch 58 58, Rep 0 5 h16_colon, h16, dcolon, Ch 32 32]], [[Ch 58
        58, Rep 5 5 h16_colon, ls32, ha_to_port], [Cat dcolon (Cat (Rep 4 4 h16_colon) ls32),
        ha_to_port], [Cat dcolon (Cat (Rep 3 3 h16_colon) ls32), ha_to_port], [Ch 58 58, h16, Cat
        dcolon (Cat (Rep 3 3 h16_colon) ls32), ha_to_port], [Cat dcolon (Cat (Rep 2 2 h16_colon)
        ls32), ha_to_port], [Ch 58 58, Rep 0 1 h16_colon, h16, Cat dcolon (Cat (Rep 2 2 h16_colon)
        ls32), ha_to_port], [Cat dcolon (Cat h16_colon ls32), ha_to_port], [Ch 58 58, Rep 0 2
        h16_colon, h16, Cat dcolon (Cat h16_colon ls32), ha_to_port], [Cat dcolon ls32,
        ha_to_port], [Ch 58 58, Rep 0 3 h16_colon, h16, Cat dcolon ls32, ha_to_port], [Cat dcolon
        h16, ha_to_port], [Ch 58 58, Rep 0 4 h16_colon, h16, Cat dcolon h16, ha_to_port], [dcolon,
        ha_to_port], [Ch 58 58, Rep 0 5 h16_colon, h16, dcolon, ha_to_port]], [[Ch 58 58, Rep 5 5
        h16_colon, ls32, ha_to_end], [Cat dcolon (Cat (Rep 4 4 h16_colon) ls32), ha_to_end], [Cat
        dcolon (Cat (Rep 3 3 h16_colon) ls32), ha_to_end], [Ch 58 58, h16, Cat dcolon (Cat (Rep 3
        3 h16_colon) ls32), ha_to_end], [Cat dcolon (Cat (Rep 2 2 h16_colon) ls32), ha_to_end],
        [Ch 58 58, Rep 0 1 h16_colon, h16, Cat dcolon (Cat (Rep 2 2 h16_colon) ls32), ha_to_end],
        [Cat dcolon (Cat h16_colon ls32), ha_to_end], [Ch 58 58, Rep 0 2 h16_colon, h16, Cat
        dcolon (Cat h16_colon ls32), ha_to_end], [Cat dcolon ls32, ha_to_end], [Ch 58 58, Rep 0 3
        h16_colon, h16, Cat dcolon ls32, ha_to_end], [Cat dcolon h16, ha_to_end], [Ch 58 58, Rep 0
        4 h16_colon, h16, Cat dcolon h16, ha_to_end], [dcolon, ha_to_end], [Ch 58 58, Rep 0 5
        h16_colon, h16, dcolon, ha_to_end]], [], [[Ch 58 58, Rep 5 5 h16_colon, ls32,
        ha_address2], [Cat dcolon (Cat (Rep 4 4 h16_colon) ls32), ha_address2], [Cat dcolon (Cat
        (Rep 3 3 h16_colon) ls32), ha_address2], [Ch 58 58, h16, Cat dcolon (Cat (Rep 3 3
        h16_colon) ls32), ha_address2], [Cat dcolon (Cat (Rep 2 2 h16_colon) ls32), ha_address2],
        [Ch 58 58, Rep 0 1 h16_colon, h16, Cat dcolon (Cat (Rep 2 2 h16_colon) ls32),
        ha_address2], [Cat dcolon (Cat h16_colon ls32), ha_address2], [Ch 58 58, Rep 0 2
        h16_colon, h16, Cat dcolon (Cat h16_colon ls32), ha_address2], [Cat dcolon ls32,
        ha_address2], [Ch 58 58, Rep 0 3 h16_colon, h16, Cat dcolon ls32, ha_address2], [Cat
        dcolon h16, ha_address2], [Ch 58 58, Rep 0 4 h16_colon, h16, Cat dcolon h16, ha_address2],
        [dcolon, ha_address2], [Ch 58 58, Rep 0 5 h16_colon, h16, dcolon, ha_address2]]]])
      else
      if s = 221 then ([-128, 48, 58, 59, 65, 71, 97, 103], [[[], [[Rep 5 5 h16_colon, ls32, Ch 32
        32], [Ch 58 58, Cat (Rep 4 4 h16_colon) ls32, Ch 32 32], [Ch 58 58, Cat (Rep 3 3
        h16_colon) ls32, Ch 32 32], [h16, Cat dcolon (Cat (Rep 3 3 h16_colon) ls32), Ch 32 32],
        [Ch 58 58, Cat (Rep 2 2 h16_colon) ls32, Ch 32 32], [Rep 0 1 h16_colon, h16, Cat dcolon
        (Cat (Rep 2 2 h16_colon) ls32), Ch 32 32], [Ch 58 58, Cat h16_colon ls32, Ch 32 32], [Rep
        0 2 h16_colon, h16, Cat dcolon (Cat h16_colon ls32), Ch 32 32], [Ch 58 58, ls32, Ch 32
        32], [Rep 0 3 h16_colon, h16, Cat dcolon ls32, Ch 32 32], [Ch 58 58, h16, Ch 32 32], [Rep
        0 4 h16_colon, h16, Cat dcolon h16, Ch 32 32], [Ch 58 58, Ch 32 32], [Rep 0 5 h16_colon,
        h16, dcolon, Ch 32 32]], [[Rep 5 5 h16_colon, ls32, ha_to_port], [Ch 58 58, Cat (Rep 4 4
        h16_colon) ls32, ha_to_port], [Ch 58 58, Cat (Rep 3 3 h16_colon) ls32, ha_to_port], [h16,
        Cat dcolon (Cat (Rep 3 3 h16_colon) ls32), ha_to_port], [Ch 58 58, Cat (Rep 2 2 h16_colon)
        ls32, ha_to_port], [Rep 0 1 h16_colon, h16, Cat dcolon (Cat (Rep 2 2 h16_colon) ls32),
        ha_to_port], [Ch 58 58, Cat h16_colon ls32, ha_to_port], [Rep 0 2 h16_colon, h16, Cat
        dcolon (Cat h16_colon ls32), ha_to_port], [Ch 58 58, ls32, ha_to_port], [Rep 0 3
        h16_colon, h16, Cat dcolon ls32, ha_to_port], [Ch 58 58, h16, ha_to_port], [Rep 0 4
        h16_colon, h16, Cat dcolon h16, ha_to_port], [Ch 58 58, ha_to_port], [Rep 0 5 h16_colon,
        h16, dcolon, ha_to_port]], [[Rep 5 5 h16_colon, ls32, ha_to_end], [Ch 58 58, Cat (Rep 4 4
        h16_colon) ls32, ha_to_end], [Ch 58 58, Cat (Rep 3 3 h16_colon) ls32, ha_to_end], [h16,
        Cat dcolon (Cat (Rep 3 3 h16_colon) ls32), ha_to_end], [Ch 58 58, Cat (Rep 2 2 h16_colon)
        ls32, ha_to_end], [Rep 0 1 h16_colon, h16, Cat dcolon (Cat (Rep 2 2 h16_colon) ls32),
        ha_to_end], [Ch 58 58, Cat h16_colon ls32, ha_to_end], [Rep 0 2 h16_colon, h16, Cat dcolon
        (Cat h16_colon ls32), ha_to_end], [Ch 58 58, ls32, ha_to_end], [Rep 0 3 h16_colon, h16,
        Cat dcolon ls32, ha_to_end], [Ch 58 58, h16, ha_to_end], [Rep 0 4 h16_colon, h16, Cat
        dcolon h16, ha_to_end], [Ch 58 58, ha_to_end], [Rep 0 5 h16_colon, h16, dcolon,
        ha_to_end]], [], [[Rep 5 5 h16_colon, ls32, ha_address2], [Ch 58 58, Cat (Rep 4 4
        h16_colon) ls32, ha_address2], [Ch 58 58, Cat (Rep 3 3 h16_colon) ls32, ha_address2],
        [h16, Cat dcolon (Cat (Rep 3 3 h16_colon) ls32), ha_address2], [Ch 58 58, Cat (Rep 2 2
        h16_colon) ls32, ha_address2], [Rep 0 1 h16_colon, h16, Cat dcolon (Cat (Rep 2 2
        h16_colon) ls32), ha_address2], [Ch 58 58, Cat h16_colon ls32, ha_address2], [Rep 0 2
        h16_colon, h16, Cat dcolon (Cat h16_colon ls32), ha_address2], [Ch 58 58, ls32,
        ha_address2], [Rep 0 3 h16_colon, h16, Cat dcolon ls32, ha_address2], [Ch 58 58, h16,
        ha_address2], [Rep 0 4 h16_colon, h16, Cat dcolon h16, ha_address2], [Ch 58 58,
        ha_address2], [Rep 0 5 h16_colon, h16, dcolon, ha_address2]]]])
      else
      if s = 222 then ([-128, 48, 58, 59, 65, 71, 97, 103], [[[], [[Rep 0 3 HEXDIG, Ch 58 58, Rep
        4 4 h16_colon, ls32, Ch 32 32], [Rep 0 3 HEXDIG, Cat dcolon (Cat (Rep 3 3 h16_colon)
        ls32), Ch 32 32], [Rep 0 3 HEXDIG, Cat dcolon (Cat (Rep 2 2 h16_colon) ls32), Ch 32 32],
        [Rep 0 3 HEXDIG, Ch 58 58, h16, Cat dcolon (Cat (Rep 2 2 h16_colon) ls32), Ch 32 32], [Rep
        0 3 HEXDIG, Cat dcolon (Cat h16_colon ls32), Ch 32 32], [Rep 0 3 HEXDIG, Ch 58 58, Rep 0 1
        h16_colon, h16, Cat dcolon (Cat h16_colon ls32), Ch 32 32], [Rep 0 3 HEXDIG, Cat dcolon
        ls32, Ch 32 32], [Rep 0 3 HEXDIG, Ch 58 58, Rep 0 2 h16_colon, h16, Cat dcolon ls32, Ch 32
        32], [Rep 0 3 HEXDIG, Cat dcolon h16, Ch 32 32], [Rep 0 3 HEXDIG, Ch 58 58, Rep 0 3
        h16_colon, h16, Cat dcolon h16, Ch 32 32], [Rep 0 3 HEXDIG, dcolon, Ch 32 32], [Rep 0 3
        HEXDIG, Ch 58 58, Rep 0 4 h16_colon, h16, dcolon, Ch 32 32]], [[Rep 0 3 HEXDIG, Ch 58 58,
        Rep 4 4 h16_colon, ls32, ha_to_port], [Rep 0 3 HEXDIG, Cat dcolon (Cat (Rep 3 3 h16_colon)
        ls32), ha_to_port], [Rep 0 3 HEXDIG, Cat dcolon (Cat (Rep 2 2 h16_colon) ls32),
        ha_to_port], [Rep 0 3 HEXDIG, Ch 58 58, h16, Cat dcolon (Cat (Rep 2 2 h16_colon) ls32),
        ha_to_port], [Rep 0 3 HEXDIG, Cat dcolon (Cat h16_colon ls32), ha_to_port], [Rep 0 3
        HEXDIG, Ch 58 58, Rep 0 1 h16_colon, h16, Cat dcolon (Cat h16_colon ls32), ha_to_port],
        [Rep 0 3 HEXDIG, Cat dcolon ls32, ha_to_port], [Rep 0 3 HEXDIG, Ch 58 58, Rep 0 2
        h16_colon, h16, Cat dcolon ls32, ha_to_port], [Rep 0 3 HEXDIG, Cat dcolon h16,
        ha_to_port], [Rep 0 3 HEXDIG, Ch 58 58, Rep 0 3 h16_colon, h16, Cat dcolon h16,
        ha_to_port], [Rep 0 3 HEXDIG, dcolon, ha_to_port], [Rep 0 3 HEXDIG, Ch 58 58, Rep 0 4
        h16_colon, h16, dcolon, ha_to_port]], [[Rep 0 3 HEXDIG, Ch 58 58, Rep 4 4 h16_colon, ls32,
        ha_to_end], [Rep 0 3 HEXDIG, Cat dcolon (Cat (Rep 3 3 h16_colon) ls32), ha_to_end], [Rep 0
        3 HEXDIG, Cat dcolon (Cat (Rep 2 2 h16_colon) ls32), ha_to_end], [Rep 0 3 HEXDIG, Ch 58
        58, h16, Cat dcolon (Cat (Rep 2 2 h16_colon) ls32), ha_to_end], [Rep 0 3 HEXDIG, Cat
        dcolon (Cat h16_colon ls32), ha_to_end], [Rep 0 3 HEXDIG, Ch 58 58, Rep 0 1 h16_colon,
        h16, Cat dcolon (Cat h16_colon ls32), ha_to_end], [Rep 0 3 HEXDIG, Cat dcolon ls32,
        ha_to_end], [Rep 0 3 HEXDIG, Ch 58 58, Rep 0 2 h16_colon, h16, Cat dcolon ls32,
        ha_to_end], [Rep 0 3 HEXDIG, Cat dcolon h16, ha_to_end], [Rep 0 3 HEXDIG, Ch 58 58, Rep 0
        3 h16_colon, h16, Cat dcolon h16, ha_to_end], [Rep 0 3 HEXDIG, dcolon, ha_to_end], [Rep 0
        3 HEXDIG, Ch 58 58, Rep 0 4 h16_colon, h16, dcolon, ha_to_end]], [], [[Rep 0 3 HEXDIG, Ch
        58 58, Rep 4 4 h16_colon, ls32, ha_address2], [Rep 0 3 HEXDIG, Cat dcolon (Cat (Rep 3 3
        h16_colon) ls32), ha_address2], [Rep 0 3 HEXDIG, Cat dcolon (Cat (Rep 2 2 h16_colon)
        ls32), ha_address2], [Rep 0 3 HEXDIG, Ch 58 58, h16, Cat dcolon (Cat (Rep 2 2 h16_colon)
        ls32), ha_address2], [Rep 0 3 HEXDIG, Cat dcolon (Cat h16_colon ls32), ha_address2], [Rep
        0 3 HEXDIG, Ch 58 58, Rep 0 1 h16_colon, h16, Cat dcolon (Cat h16_colon ls32),
        ha_address2], [Rep 0 3 HEXDIG, Cat dcolon ls32, ha_address2], [Rep 0 3 HEXDIG, Ch 58 58,
        Rep 0 2 h16_colon, h16, Cat dcolon ls32, ha_address2], [Rep 0 3 HEXDIG, Cat dcolon h16,
        ha_address2], [Rep 0 3 HEXDIG, Ch 58 58, Rep 0 3 h16_colon, h16, Cat dcolon h16,
        ha_address2], [Rep 0 3 HEXDIG, dcolon, ha_address2], [Rep 0 3 HEXDIG, Ch 58 58, Rep 0 4
        h16_colon, h16, dcolon, ha_address2]]]])
      else
      if s = 223 then ([-128, 48, 58, 59, 65, 71, 97, 103], [[[], [[Rep 0 2 HEXDIG, Ch 58 58, Rep
        4 4 h16_colon, ls32, Ch 32 32], [Rep 0 2 HEXDIG, Cat dcolon (Cat (Rep 3 3 h16_colon)
        ls32), Ch 32 32], [Rep 0 2 HEXDIG, Cat dcolon (Cat (Rep 2 2 h16_colon) ls32), Ch 32 32],
        [Rep 0 2 HEXDIG, Ch 58 58, h16, Cat dcolon (Cat (Rep 2 2 h16_colon) ls32), Ch 32 32], [Rep
        0 2 HEXDIG, Cat dcolon (Cat h16_colon ls32), Ch 32 32], [Rep 0 2 HEXDIG, Ch 58 58, Rep 0 1
        h16_colon, h16, Cat dcolon (Cat h16_colon ls32), Ch 32 32], [Rep 0 2 HEXDIG, Cat dcolon
        ls32, Ch 32 32], [Rep 0 2 HEXDIG, Ch 58 58, Rep 0 2 h16_colon, h16, Cat dcolon ls32, Ch 32
        32], [Rep 0 2 HEXDIG, Cat dcolon h16, Ch 32 32], [Rep 0 2 HEXDIG, Ch 58 58, Rep 0 3
        h16_colon, h16, Cat dcolon h16, Ch 32 32], [Rep 0 2 HEXDIG, dcolon, Ch 32 32], [Rep 0 2
        HEXDIG, Ch 58 58, Rep 0 4 h16_colon, h16, dcolon, Ch 32 32]], [[Rep 0 2 HEXDIG, Ch 58 58,
        Rep 4 4 h16_colon, ls32, ha_to_port], [Rep 0 2 HEXDIG, Cat dcolon (Cat (Rep 3 3 h16_colon)
        ls32), ha_to_port], [Rep 0 2 HEXDIG, Cat dcolon (Cat (Rep 2 2 h16_colon) ls32),
        ha_to_port], [Rep 0 2 HEXDIG, Ch 58 58, h16, Cat dcolon (Cat (Rep 2 2 h16_colon) ls32),
        ha_to_port], [Rep 0 2 HEXDIG, Cat dcolon (Cat h16_colon ls32), ha_to_port], [Rep 0 2
        HEXDIG, Ch 58 58, Rep 0 1 h16_colon, h16, Cat dcolon (Cat h16_colon ls32), ha_to_port],
        [Rep 0 2 HEXDIG, Cat dcolon ls32, ha_to_port], [Rep 0 2 HEXDIG, Ch 58 58, Rep 0 2
        h16_colon, h16, Cat dcolon ls32, ha_to_port], [Rep 0 2 HEXDIG, Cat dcolon h16,
        ha_to_port], [Rep 0 2 HEXDIG, Ch 58 58, Rep 0 3 h16_colon, h16, Cat dcolon h16,
        ha_to_port], [Rep 0 2 HEXDIG, dcolon, ha_to_port], [Rep 0 2 HEXDIG, Ch 58 58, Rep 0 4
        h16_colon, h16, dcolon, ha_to_port]], [[Rep 0 2 HEXDIG, Ch 58 58, Rep 4 4 h16_colon, ls32,
        ha_to_end], [Rep 0 2 HEXDIG, Cat dcolon (Cat (Rep 3 3 h16_colon) ls32), ha_to_end], [Rep 0
        2 HEXDIG, Cat dcolon (Cat (Rep 2 2 h16_colon) ls32), ha_to_end], [Rep 0 2 HEXDIG, Ch 58
        58, h16, Cat dcolon (Cat (Rep 2 2 h16_colon) ls32), ha_to_end], [Rep 0 2 HEXDIG, Cat
        dcolon (Cat h16_colon ls32), ha_to_end], [Rep 0 2 HEXDIG, Ch 58 58, Rep 0 1 h16_colon,
        h16, Cat dcolon (Cat h16_colon ls32), ha_to_end], [Rep 0 2 HEXDIG, Cat dcolon ls32,
        ha_to_end], [Rep 0 2 HEXDIG, Ch 58 58, Rep 0 2 h16_colon, h16, Cat dcolon ls32,
        ha_to_end], [Rep 0 2 HEXDIG, Cat dcolon h16, ha_to_end], [Rep 0 2 HEXDIG, Ch 58 58, Rep 0
        3 h16_colon, h16, Cat dcolon h16, ha_to_end], [Rep 0 2 HEXDIG, dcolon, ha_to_end], [Rep 0
        2 HEXDIG, Ch 58 58, Rep 0 4 h16_colon, h16, dcolon, ha_to_end]], [], [[Rep 0 2 HEXDIG, Ch
        58 58, Rep 4 4 h16_colon, ls32, ha_address2], [Rep 0 2 HEXDIG, Cat dcolon (Cat (Rep 3 3
        h16_colon) ls32), ha_address2], [Rep 0 2 HEXDIG, Cat dcolon (Cat (Rep 2 2 h16_colon)
        ls32), ha_address2], [Rep 0 2 HEXDIG, Ch 58 58, h16, Cat dcolon (Cat (Rep 2 2 h16_colon)
        ls32), ha_address2], [Rep 0 2 HEXDIG, Cat dcolon (Cat h16_colon ls32), ha_address2], [Rep
        0 2 HEXDIG, Ch 58 58, Rep 0 1 h16_colon, h16, Cat dcolon (Cat h16_colon ls32),
        ha_address2], [Rep 0 2 HEXDIG, Cat dcolon ls32, ha_address2], [Rep 0 2 HEXDIG, Ch 58 58,
        Rep 0 2 h16_colon, h16, Cat dcolon ls32, ha_address2], [Rep 0 2 HEXDIG, Cat dcolon h16,
        ha_address2], [Rep 0 2 HEXDIG, Ch 58 58, Rep 0 3 h16_colon, h16, Cat dcolon h16,
        ha_address2], [Rep 0 2 HEXDIG, dcolon, ha_address2], [Rep 0 2 HEXDIG, Ch 58 58, Rep 0 4
        h16_colon, h16, dcolon, ha_address2]]]])
      else
      ([-128, 48, 58, 59, 65, 71, 97, 103], [[[], [[Rep 0 1 HEXDIG, Ch 58 58, Rep 4 4 h16_colon,
        ls32, Ch 32 32], [Rep 0 1 HEXDIG, Cat dcolon (Cat (Rep 3 3 h16_colon) ls32), Ch 32 32],
        [Rep 0 1 HEXDIG, Cat dcolon (Cat (Rep 2 2 h16_colon) ls32), Ch 32 32], [Rep 0 1 HEXDIG, Ch
        58 58, h16, Cat dcolon (Cat (Rep 2 2 h16_colon) ls32), Ch 32 32], [Rep 0 1 HEXDIG, Cat
        dcolon (Cat h16_colon ls32), Ch 32 32], [Rep 0 1 HEXDIG, Ch 58 58, Rep 0 1 h16_colon, h16,
        Cat dcolon (Cat h16_colon ls32), Ch 32 32], [Rep 0 1 HEXDIG, Cat dcolon ls32, Ch 32 32],
        [Rep 0 1 HEXDIG, Ch 58 58, Rep 0 2 h16_colon, h16, Cat dcolon ls32, Ch 32 32], [Rep 0 1
        HEXDIG, Cat dcolon h16, Ch 32 32], [Rep 0 1 HEXDIG, Ch 58 58, Rep 0 3 h16_colon, h16, Cat
        dcolon h16, Ch 32 32], [Rep 0 1 HEXDIG, dcolon, Ch 32 32], [Rep 0 1 HEXDIG, Ch 58 58, Rep
        0 4 h16_colon, h16, dcolon, Ch 32 32]], [[Rep 0 1 HEXDIG, Ch 58 58, Rep 4 4 h16_colon,
        ls32, ha_to_port], [Rep 0 1 HEXDIG, Cat dcolon (Cat (Rep 3 3 h16_colon) ls32),
        ha_to_port], [Rep 0 1 HEXDIG, Cat dcolon (Cat (Rep 2 2 h16_colon) ls32), ha_to_port], [Rep
        0 1 HEXDIG, Ch 58 58, h16, Cat dcolon (Cat (Rep 2 2 h16_colon) ls32), ha_to_port], [Rep 0
        1 HEXDIG, Cat dcolon (Cat h16_colon ls32), ha_to_port], [Rep 0 1 HEXDIG, Ch 58 58, Rep 0 1
        h16_colon, h16, Cat dcolon (Cat h16_colon ls32), ha_to_port], [Rep 0 1 HEXDIG, Cat dcolon
        ls32, ha_to_port], [Rep 0 1 HEXDIG, Ch 58 58, Rep 0 2 h16_colon, h16, Cat dcolon ls32,
        ha_to_port], [Rep 0 1 HEXDIG, Cat dcolon h16, ha_to_port], [Rep 0 1 HEXDIG, Ch 58 58, Rep
        0 3 h16_colon, h16, Cat dcolon h16, ha_to_port], [Rep 0 1 HEXDIG, dcolon, ha_to_port],
        [Rep 0 1 HEXDIG, Ch 58 58, Rep 0 4 h16_colon, h16, dcolon, ha_to_port]], [[Rep 0 1 HEXDIG,
        Ch 58 58, Rep 4 4 h16_colon, ls32, ha_to_end], [Rep 0 1 HEXDIG, Cat dcolon (Cat (Rep 3 3
        h16_colon) ls32), ha_to_end], [Rep 0 1 HEXDIG, Cat dcolon (Cat (Rep 2 2 h16_colon) ls32),
        ha_to_end], [Rep 0 1 HEXDIG, Ch 58 58, h16, Cat dcolon (Cat (Rep 2 2 h16_colon) ls32),
        ha_to_end], [Rep 0 1 HEXDIG, Cat dcolon (Cat h16_colon ls32), ha_to_end], [Rep 0 1 HEXDIG,
        Ch 58 58, Rep 0 1 h16_colon, h16, Cat dcolon (Cat h16_colon ls32), ha_to_end], [Rep 0 1
        HEXDIG, Cat dcolon ls32, ha_to_end], [Rep 0 1 HEXDIG, Ch 58 58, Rep 0 2 h16_colon, h16,
        Cat dcolon ls32, ha_to_end], [Rep 0 1 HEXDIG, Cat dcolon h16, ha_to_end], [Rep 0 1 HEXDIG,
        Ch 58 58, Rep 0 3 h16_colon, h16, Cat dcolon h16, ha_to_end], [Rep 0 1 HEXDIG, dcolon,
        ha_to_end], [Rep 0 1 HEXDIG, Ch 58 58, Rep 0 4 h16_colon, h16, dcolon, ha_to_end]], [],
        [[Rep 0 1 HEXDIG, Ch 58 58, Rep 4 4 h16_colon, ls32, ha_address2], [Rep 0 1 HEXDIG, Cat
        dcolon (Cat (Rep 3 3 h16_colon) ls32), ha_address2], [Rep 0 1 HEXDIG, Cat dcolon (Cat (Rep
        2 2 h16_colon) ls32), ha_address2], [Rep 0 1 HEXDIG, Ch 58 58, h16, Cat dcolon (Cat (Rep 2
        2 h16_colon) ls32), ha_address2], [Rep 0 1 HEXDIG, Cat dcolon (Cat h16_colon ls32),
        ha_address2], [Rep 0 1 HEXDIG, Ch 58 58, Rep 0 1 h16_colon, h16, Cat dcolon (Cat h16_colon
        ls32), ha_address2], [Rep 0 1 HEXDIG, Cat dcolon ls32, ha_address2], [Rep 0 1 HEXDIG, Ch
        58 58, Rep 0 2 h16_colon, h16, Cat dcolon ls32, ha_address2], [Rep 0 1 HEXDIG, Cat dcolon
        h16, ha_address2], [Rep 0 1 HEXDIG, Ch 58 58, Rep 0 3 h16_colon, h16, Cat dcolon h16,
        ha_address2], [Rep 0 1 HEXDIG, dcolon, ha_address2], [Rep 0 1 HEXDIG, Ch 58 58, Rep 0 4
        h16_colon, h16, dcolon, ha_address2]]]]))"

definition ha_expects_29 :: certificate where
  "ha_expects_29 s =
     (if s = 225 then ([-128, 58, 59], [[[], [[Ch 58 58, Rep 4 4 h16_colon, ls32, Ch 32 32], [Cat
        dcolon (Cat (Rep 3 3 h16_colon) ls32), Ch 32 32], [Cat dcolon (Cat (Rep 2 2 h16_colon)
        ls32), Ch 32 32], [Ch 58 58, h16, Cat dcolon (Cat (Rep 2 2 h16_colon) ls32), Ch 32 32],
        [Cat dcolon (Cat h16_colon ls32), Ch 32 32], [Ch 58 58, Rep 0 1 h16_colon, h16, Cat dcolon
        (Cat h16_colon ls32), Ch 32 32], [Cat dcolon ls32, Ch 32 32], [Ch 58 58, Rep 0 2
        h16_colon, h16, Cat dcolon ls32, Ch 32 32], [Cat dcolon h16, Ch 32 32], [Ch 58 58, Rep 0 3
        h16_colon, h16, Cat dcolon h16, Ch 32 32], [dcolon, Ch 32 32], [Ch 58 58, Rep 0 4
        h16_colon, h16, dcolon, Ch 32 32]], [[Ch 58 58, Rep 4 4 h16_colon, ls32, ha_to_port], [Cat
        dcolon (Cat (Rep 3 3 h16_colon) ls32), ha_to_port], [Cat dcolon (Cat (Rep 2 2 h16_colon)
        ls32), ha_to_port], [Ch 58 58, h16, Cat dcolon (Cat (Rep 2 2 h16_colon) ls32),
        ha_to_port], [Cat dcolon (Cat h16_colon ls32), ha_to_port], [Ch 58 58, Rep 0 1 h16_colon,
        h16, Cat dcolon (Cat h16_colon ls32), ha_to_port], [Cat dcolon ls32, ha_to_port], [Ch 58
        58, Rep 0 2 h16_colon, h16, Cat dcolon ls32, ha_to_port], [Cat dcolon h16, ha_to_port],
        [Ch 58 58, Rep 0 3 h16_colon, h16, Cat dcolon h16, ha_to_port], [dcolon, ha_to_port], [Ch
        58 58, Rep 0 4 h16_colon, h16, dcolon, ha_to_port]], [[Ch 58 58, Rep 4 4 h16_colon, ls32,
        ha_to_end], [Cat dcolon (Cat (Rep 3 3 h16_colon) ls32), ha_to_end], [Cat dcolon (Cat (Rep
        2 2 h16_colon) ls32), ha_to_end], [Ch 58 58, h16, Cat dcolon (Cat (Rep 2 2 h16_colon)
        ls32), ha_to_end], [Cat dcolon (Cat h16_colon ls32), ha_to_end], [Ch 58 58, Rep 0 1
        h16_colon, h16, Cat dcolon (Cat h16_colon ls32), ha_to_end], [Cat dcolon ls32, ha_to_end],
        [Ch 58 58, Rep 0 2 h16_colon, h16, Cat dcolon ls32, ha_to_end], [Cat dcolon h16,
        ha_to_end], [Ch 58 58, Rep 0 3 h16_colon, h16, Cat dcolon h16, ha_to_end], [dcolon,
        ha_to_end], [Ch 58 58, Rep 0 4 h16_colon, h16, dcolon, ha_to_end]], [], [[Ch 58 58, Rep 4
        4 h16_colon, ls32, ha_address2], [Cat dcolon (Cat (Rep 3 3 h16_colon) ls32), ha_address2],
        [Cat dcolon (Cat (Rep 2 2 h16_colon) ls32), ha_address2], [Ch 58 58, h16, Cat dcolon (Cat
        (Rep 2 2 h16_colon) ls32), ha_address2], [Cat dcolon (Cat h16_colon ls32), ha_address2],
        [Ch 58 58, Rep 0 1 h16_colon, h16, Cat dcolon (Cat h16_colon ls32), ha_address2], [Cat
        dcolon ls32, ha_address2], [Ch 58 58, Rep 0 2 h16_colon, h16, Cat dcolon ls32,
        ha_address2], [Cat dcolon h16, ha_address2], [Ch 58 58, Rep 0 3 h16_colon, h16, Cat dcolon
        h16, ha_address2], [dcolon, ha_address2], [Ch 58 58, Rep 0 4 h16_colon, h16, dcolon,
        ha_address2]]]])
      else
      if s = 226 then ([-128, 48, 58, 59, 65, 71, 97, 103], [[[], [[Rep 4 4 h16_colon, ls32, Ch 32
        32], [Ch 58 58, Cat (Rep 3 3 h16_colon) ls32, Ch 32 32], [Ch 58 58, Cat (Rep 2 2
        h16_colon) ls32, Ch 32 32], [h16, Cat dcolon (Cat (Rep 2 2 h16_colon) ls32), Ch 32 32],
        [Ch 58 58, Cat h16_colon ls32, Ch 32 32], [Rep 0 1 h16_colon, h16, Cat dcolon (Cat
        h16_colon ls32), Ch 32 32], [Ch 58 58, ls32, Ch 32 32], [Rep 0 2 h16_colon, h16, Cat
        dcolon ls32, Ch 32 32], [Ch 58 58, h16, Ch 32 32], [Rep 0 3 h16_colon, h16, Cat dcolon
        h16, Ch 32 32], [Ch 58 58, Ch 32 32], [Rep 0 4 h16_colon, h16, dcolon, Ch 32 32]], [[Rep 4
        4 h16_colon, ls32, ha_to_port], [Ch 58 58, Cat (Rep 3 3 h16_colon) ls32, ha_to_port], [Ch
        58 58, Cat (Rep 2 2 h16_colon) ls32, ha_to_port], [h16, Cat dcolon (Cat (Rep 2 2
        h16_colon) ls32), ha_to_port], [Ch 58 58, Cat h16_colon ls32, ha_to_port], [Rep 0 1
        h16_colon, h16, Cat dcolon (Cat h16_colon ls32), ha_to_port], [Ch 58 58, ls32,
        ha_to_port], [Rep 0 2 h16_colon, h16, Cat dcolon ls32, ha_to_port], [Ch 58 58, h16,
        ha_to_port], [Rep 0 3 h16_colon, h16, Cat dcolon h16, ha_to_port], [Ch 58 58, ha_to_port],
        [Rep 0 4 h16_colon, h16, dcolon, ha_to_port]], [[Rep 4 4 h16_colon, ls32, ha_to_end], [Ch
        58 58, Cat (Rep 3 3 h16_colon) ls32, ha_to_end], [Ch 58 58, Cat (Rep 2 2 h16_colon) ls32,
        ha_to_end], [h16, Cat dcolon (Cat (Rep 2 2 h16_colon) ls32), ha_to_end], [Ch 58 58, Cat
        h16_colon ls32, ha_to_end], [Rep 0 1 h16_colon, h16, Cat dcolon (Cat h16_colon ls32),
        ha_to_end], [Ch 58 58, ls32, ha_to_end], [Rep 0 2 h16_colon, h16, Cat dcolon ls32,
        ha_to_end], [Ch 58 58, h16, ha_to_end], [Rep 0 3 h16_colon, h16, Cat dcolon h16,
        ha_to_end], [Ch 58 58, ha_to_end], [Rep 0 4 h16_colon, h16, dcolon, ha_to_end]], [], [[Rep
        4 4 h16_colon, ls32, ha_address2], [Ch 58 58, Cat (Rep 3 3 h16_colon) ls32, ha_address2],
        [Ch 58 58, Cat (Rep 2 2 h16_colon) ls32, ha_address2], [h16, Cat dcolon (Cat (Rep 2 2
        h16_colon) ls32), ha_address2], [Ch 58 58, Cat h16_colon ls32, ha_address2], [Rep 0 1
        h16_colon, h16, Cat dcolon (Cat h16_colon ls32), ha_address2], [Ch 58 58, ls32,
        ha_address2], [Rep 0 2 h16_colon, h16, Cat dcolon ls32, ha_address2], [Ch 58 58, h16,
        ha_address2], [Rep 0 3 h16_colon, h16, Cat dcolon h16, ha_address2], [Ch 58 58,
        ha_address2], [Rep 0 4 h16_colon, h16, dcolon, ha_address2]]]])
      else
      if s = 227 then ([-128, 48, 58, 59, 65, 71, 97, 103], [[[], [[Rep 0 3 HEXDIG, Ch 58 58, Rep
        3 3 h16_colon, ls32, Ch 32 32], [Rep 0 3 HEXDIG, Cat dcolon (Cat (Rep 2 2 h16_colon)
        ls32), Ch 32 32], [Rep 0 3 HEXDIG, Cat dcolon (Cat h16_colon ls32), Ch 32 32], [Rep 0 3
        HEXDIG, Ch 58 58, h16, Cat dcolon (Cat h16_colon ls32), Ch 32 32], [Rep 0 3 HEXDIG, Cat
        dcolon ls32, Ch 32 32], [Rep 0 3 HEXDIG, Ch 58 58, Rep 0 1 h16_colon, h16, Cat dcolon
        ls32, Ch 32 32], [Rep 0 3 HEXDIG, Cat dcolon h16, Ch 32 32], [Rep 0 3 HEXDIG, Ch 58 58,
        Rep 0 2 h16_colon, h16, Cat dcolon h16, Ch 32 32], [Rep 0 3 HEXDIG, dcolon, Ch 32 32],
        [Rep 0 3 HEXDIG, Ch 58 58, Rep 0 3 h16_colon, h16, dcolon, Ch 32 32]], [[Rep 0 3 HEXDIG,
        Ch 58 58, Rep 3 3 h16_colon, ls32, ha_to_port], [Rep 0 3 HEXDIG, Cat dcolon (Cat (Rep 2 2
        h16_colon) ls32), ha_to_port], [Rep 0 3 HEXDIG, Cat dcolon (Cat h16_colon ls32),
        ha_to_port], [Rep 0 3 HEXDIG, Ch 58 58, h16, Cat dcolon (Cat h16_colon ls32), ha_to_port],
        [Rep 0 3 HEXDIG, Cat dcolon ls32, ha_to_port], [Rep 0 3 HEXDIG, Ch 58 58, Rep 0 1
        h16_colon, h16, Cat dcolon ls32, ha_to_port], [Rep 0 3 HEXDIG, Cat dcolon h16,
        ha_to_port], [Rep 0 3 HEXDIG, Ch 58 58, Rep 0 2 h16_colon, h16, Cat dcolon h16,
        ha_to_port], [Rep 0 3 HEXDIG, dcolon, ha_to_port], [Rep 0 3 HEXDIG, Ch 58 58, Rep 0 3
        h16_colon, h16, dcolon, ha_to_port]], [[Rep 0 3 HEXDIG, Ch 58 58, Rep 3 3 h16_colon, ls32,
        ha_to_end], [Rep 0 3 HEXDIG, Cat dcolon (Cat (Rep 2 2 h16_colon) ls32), ha_to_end], [Rep 0
        3 HEXDIG, Cat dcolon (Cat h16_colon ls32), ha_to_end], [Rep 0 3 HEXDIG, Ch 58 58, h16, Cat
        dcolon (Cat h16_colon ls32), ha_to_end], [Rep 0 3 HEXDIG, Cat dcolon ls32, ha_to_end],
        [Rep 0 3 HEXDIG, Ch 58 58, Rep 0 1 h16_colon, h16, Cat dcolon ls32, ha_to_end], [Rep 0 3
        HEXDIG, Cat dcolon h16, ha_to_end], [Rep 0 3 HEXDIG, Ch 58 58, Rep 0 2 h16_colon, h16, Cat
        dcolon h16, ha_to_end], [Rep 0 3 HEXDIG, dcolon, ha_to_end], [Rep 0 3 HEXDIG, Ch 58 58,
        Rep 0 3 h16_colon, h16, dcolon, ha_to_end]], [], [[Rep 0 3 HEXDIG, Ch 58 58, Rep 3 3
        h16_colon, ls32, ha_address2], [Rep 0 3 HEXDIG, Cat dcolon (Cat (Rep 2 2 h16_colon) ls32),
        ha_address2], [Rep 0 3 HEXDIG, Cat dcolon (Cat h16_colon ls32), ha_address2], [Rep 0 3
        HEXDIG, Ch 58 58, h16, Cat dcolon (Cat h16_colon ls32), ha_address2], [Rep 0 3 HEXDIG, Cat
        dcolon ls32, ha_address2], [Rep 0 3 HEXDIG, Ch 58 58, Rep 0 1 h16_colon, h16, Cat dcolon
        ls32, ha_address2], [Rep 0 3 HEXDIG, Cat dcolon h16, ha_address2], [Rep 0 3 HEXDIG, Ch 58
        58, Rep 0 2 h16_colon, h16, Cat dcolon h16, ha_address2], [Rep 0 3 HEXDIG, dcolon,
        ha_address2], [Rep 0 3 HEXDIG, Ch 58 58, Rep 0 3 h16_colon, h16, dcolon, ha_address2]]]])
      else
      if s = 228 then ([-128, 48, 58, 59, 65, 71, 97, 103], [[[], [[Rep 0 2 HEXDIG, Ch 58 58, Rep
        3 3 h16_colon, ls32, Ch 32 32], [Rep 0 2 HEXDIG, Cat dcolon (Cat (Rep 2 2 h16_colon)
        ls32), Ch 32 32], [Rep 0 2 HEXDIG, Cat dcolon (Cat h16_colon ls32), Ch 32 32], [Rep 0 2
        HEXDIG, Ch 58 58, h16, Cat dcolon (Cat h16_colon ls32), Ch 32 32], [Rep 0 2 HEXDIG, Cat
        dcolon ls32, Ch 32 32], [Rep 0 2 HEXDIG, Ch 58 58, Rep 0 1 h16_colon, h16, Cat dcolon
        ls32, Ch 32 32], [Rep 0 2 HEXDIG, Cat dcolon h16, Ch 32 32], [Rep 0 2 HEXDIG, Ch 58 58,
        Rep 0 2 h16_colon, h16, Cat dcolon h16, Ch 32 32], [Rep 0 2 HEXDIG, dcolon, Ch 32 32],
        [Rep 0 2 HEXDIG, Ch 58 58, Rep 0 3 h16_colon, h16, dcolon, Ch 32 32]], [[Rep 0 2 HEXDIG,
        Ch 58 58, Rep 3 3 h16_colon, ls32, ha_to_port], [Rep 0 2 HEXDIG, Cat dcolon (Cat (Rep 2 2
        h16_colon) ls32), ha_to_port], [Rep 0 2 HEXDIG, Cat dcolon (Cat h16_colon ls32),
        ha_to_port], [Rep 0 2 HEXDIG, Ch 58 58, h16, Cat dcolon (Cat h16_colon ls32), ha_to_port],
        [Rep 0 2 HEXDIG, Cat dcolon ls32, ha_to_port], [Rep 0 2 HEXDIG, Ch 58 58, Rep 0 1
        h16_colon, h16, Cat dcolon ls32, ha_to_port], [Rep 0 2 HEXDIG, Cat dcolon h16,
        ha_to_port], [Rep 0 2 HEXDIG, Ch 58 58, Rep 0 2 h16_colon, h16, Cat dcolon h16,
        ha_to_port], [Rep 0 2 HEXDIG, dcolon, ha_to_port], [Rep 0 2 HEXDIG, Ch 58 58, Rep 0 3
        h16_colon, h16, dcolon, ha_to_port]], [[Rep 0 2 HEXDIG, Ch 58 58, Rep 3 3 h16_colon, ls32,
        ha_to_end], [Rep 0 2 HEXDIG, Cat dcolon (Cat (Rep 2 2 h16_colon) ls32), ha_to_end], [Rep 0
        2 HEXDIG, Cat dcolon (Cat h16_colon ls32), ha_to_end], [Rep 0 2 HEXDIG, Ch 58 58, h16, Cat
        dcolon (Cat h16_colon ls32), ha_to_end], [Rep 0 2 HEXDIG, Cat dcolon ls32, ha_to_end],
        [Rep 0 2 HEXDIG, Ch 58 58, Rep 0 1 h16_colon, h16, Cat dcolon ls32, ha_to_end], [Rep 0 2
        HEXDIG, Cat dcolon h16, ha_to_end], [Rep 0 2 HEXDIG, Ch 58 58, Rep 0 2 h16_colon, h16, Cat
        dcolon h16, ha_to_end], [Rep 0 2 HEXDIG, dcolon, ha_to_end], [Rep 0 2 HEXDIG, Ch 58 58,
        Rep 0 3 h16_colon, h16, dcolon, ha_to_end]], [], [[Rep 0 2 HEXDIG, Ch 58 58, Rep 3 3
        h16_colon, ls32, ha_address2], [Rep 0 2 HEXDIG, Cat dcolon (Cat (Rep 2 2 h16_colon) ls32),
        ha_address2], [Rep 0 2 HEXDIG, Cat dcolon (Cat h16_colon ls32), ha_address2], [Rep 0 2
        HEXDIG, Ch 58 58, h16, Cat dcolon (Cat h16_colon ls32), ha_address2], [Rep 0 2 HEXDIG, Cat
        dcolon ls32, ha_address2], [Rep 0 2 HEXDIG, Ch 58 58, Rep 0 1 h16_colon, h16, Cat dcolon
        ls32, ha_address2], [Rep 0 2 HEXDIG, Cat dcolon h16, ha_address2], [Rep 0 2 HEXDIG, Ch 58
        58, Rep 0 2 h16_colon, h16, Cat dcolon h16, ha_address2], [Rep 0 2 HEXDIG, dcolon,
        ha_address2], [Rep 0 2 HEXDIG, Ch 58 58, Rep 0 3 h16_colon, h16, dcolon, ha_address2]]]])
      else
      if s = 229 then ([-128, 48, 58, 59, 65, 71, 97, 103], [[[], [[Rep 0 1 HEXDIG, Ch 58 58, Rep
        3 3 h16_colon, ls32, Ch 32 32], [Rep 0 1 HEXDIG, Cat dcolon (Cat (Rep 2 2 h16_colon)
        ls32), Ch 32 32], [Rep 0 1 HEXDIG, Cat dcolon (Cat h16_colon ls32), Ch 32 32], [Rep 0 1
        HEXDIG, Ch 58 58, h16, Cat dcolon (Cat h16_colon ls32), Ch 32 32], [Rep 0 1 HEXDIG, Cat
        dcolon ls32, Ch 32 32], [Rep 0 1 HEXDIG, Ch 58 58, Rep 0 1 h16_colon, h16, Cat dcolon
        ls32, Ch 32 32], [Rep 0 1 HEXDIG, Cat dcolon h16, Ch 32 32], [Rep 0 1 HEXDIG, Ch 58 58,
        Rep 0 2 h16_colon, h16, Cat dcolon h16, Ch 32 32], [Rep 0 1 HEXDIG, dcolon, Ch 32 32],
        [Rep 0 1 HEXDIG, Ch 58 58, Rep 0 3 h16_colon, h16, dcolon, Ch 32 32]], [[Rep 0 1 HEXDIG,
        Ch 58 58, Rep 3 3 h16_colon, ls32, ha_to_port], [Rep 0 1 HEXDIG, Cat dcolon (Cat (Rep 2 2
        h16_colon) ls32), ha_to_port], [Rep 0 1 HEXDIG, Cat dcolon (Cat h16_colon ls32),
        ha_to_port], [Rep 0 1 HEXDIG, Ch 58 58, h16, Cat dcolon (Cat h16_colon ls32), ha_to_port],
        [Rep 0 1 HEXDIG, Cat dcolon ls32, ha_to_port], [Rep 0 1 HEXDIG, Ch 58 58, Rep 0 1
        h16_colon, h16, Cat dcolon ls32, ha_to_port], [Rep 0 1 HEXDIG, Cat dcolon h16,
        ha_to_port], [Rep 0 1 HEXDIG, Ch 58 58, Rep 0 2 h16_colon, h16, Cat dcolon h16,
        ha_to_port], [Rep 0 1 HEXDIG, dcolon, ha_to_port], [Rep 0 1 HEXDIG, Ch 58 58, Rep 0 3
        h16_colon, h16, dcolon, ha_to_port]], [[Rep 0 1 HEXDIG, Ch 58 58, Rep 3 3 h16_colon, ls32,
        ha_to_end], [Rep 0 1 HEXDIG, Cat dcolon (Cat (Rep 2 2 h16_colon) ls32), ha_to_end], [Rep 0
        1 HEXDIG, Cat dcolon (Cat h16_colon ls32), ha_to_end], [Rep 0 1 HEXDIG, Ch 58 58, h16, Cat
        dcolon (Cat h16_colon ls32), ha_to_end], [Rep 0 1 HEXDIG, Cat dcolon ls32, ha_to_end],
        [Rep 0 1 HEXDIG, Ch 58 58, Rep 0 1 h16_colon, h16, Cat dcolon ls32, ha_to_end], [Rep 0 1
        HEXDIG, Cat dcolon h16, ha_to_end], [Rep 0 1 HEXDIG, Ch 58 58, Rep 0 2 h16_colon, h16, Cat
        dcolon h16, ha_to_end], [Rep 0 1 HEXDIG, dcolon, ha_to_end], [Rep 0 1 HEXDIG, Ch 58 58,
        Rep 0 3 h16_colon, h16, dcolon, ha_to_end]], [], [[Rep 0 1 HEXDIG, Ch 58 58, Rep 3 3
        h16_colon, ls32, ha_address2], [Rep 0 1 HEXDIG, Cat dcolon (Cat (Rep 2 2 h16_colon) ls32),
        ha_address2], [Rep 0 1 HEXDIG, Cat dcolon (Cat h16_colon ls32), ha_address2], [Rep 0 1
        HEXDIG, Ch 58 58, h16, Cat dcolon (Cat h16_colon ls32), ha_address2], [Rep 0 1 HEXDIG, Cat
        dcolon ls32, ha_address2], [Rep 0 1 HEXDIG, Ch 58 58, Rep 0 1 h16_colon, h16, Cat dcolon
        ls32, ha_address2], [Rep 0 1 HEXDIG, Cat dcolon h16, ha_address2], [Rep 0 1 HEXDIG, Ch 58
        58, Rep 0 2 h16_colon, h16, Cat dcolon h16, ha_address2], [Rep 0 1 HEXDIG, dcolon,
        ha_address2], [Rep 0 1 HEXDIG, Ch 58 58, Rep 0 3 h16_colon, h16, dcolon, ha_address2]]]])
      else
      if s = 230 then ([-128, 58, 59], [[[], [[Ch 58 58, Rep 3 3 h16_colon, ls32, Ch 32 32], [Cat
        dcolon (Cat (Rep 2 2 h16_colon) ls32), Ch 32 32], [Cat dcolon (Cat h16_colon ls32), Ch 32
        32], [Ch 58 58, h16, Cat dcolon (Cat h16_colon ls32), Ch 32 32], [Cat dcolon ls32, Ch 32
        32], [Ch 58 58, Rep 0 1 h16_colon, h16, Cat dcolon ls32, Ch 32 32], [Cat dcolon h16, Ch 32
        32], [Ch 58 58, Rep 0 2 h16_colon, h16, Cat dcolon h16, Ch 32 32], [dcolon, Ch 32 32], [Ch
        58 58, Rep 0 3 h16_colon, h16, dcolon, Ch 32 32]], [[Ch 58 58, Rep 3 3 h16_colon, ls32,
        ha_to_port], [Cat dcolon (Cat (Rep 2 2 h16_colon) ls32), ha_to_port], [Cat dcolon (Cat
        h16_colon ls32), ha_to_port], [Ch 58 58, h16, Cat dcolon (Cat h16_colon ls32),
        ha_to_port], [Cat dcolon ls32, ha_to_port], [Ch 58 58, Rep 0 1 h16_colon, h16, Cat dcolon
        ls32, ha_to_port], [Cat dcolon h16, ha_to_port], [Ch 58 58, Rep 0 2 h16_colon, h16, Cat
        dcolon h16, ha_to_port], [dcolon, ha_to_port], [Ch 58 58, Rep 0 3 h16_colon, h16, dcolon,
        ha_to_port]], [[Ch 58 58, Rep 3 3 h16_colon, ls32, ha_to_end], [Cat dcolon (Cat (Rep 2 2
        h16_colon) ls32), ha_to_end], [Cat dcolon (Cat h16_colon ls32), ha_to_end], [Ch 58 58,
        h16, Cat dcolon (Cat h16_colon ls32), ha_to_end], [Cat dcolon ls32, ha_to_end], [Ch 58 58,
        Rep 0 1 h16_colon, h16, Cat dcolon ls32, ha_to_end], [Cat dcolon h16, ha_to_end], [Ch 58
        58, Rep 0 2 h16_colon, h16, Cat dcolon h16, ha_to_end], [dcolon, ha_to_end], [Ch 58 58,
        Rep 0 3 h16_colon, h16, dcolon, ha_to_end]], [], [[Ch 58 58, Rep 3 3 h16_colon, ls32,
        ha_address2], [Cat dcolon (Cat (Rep 2 2 h16_colon) ls32), ha_address2], [Cat dcolon (Cat
        h16_colon ls32), ha_address2], [Ch 58 58, h16, Cat dcolon (Cat h16_colon ls32),
        ha_address2], [Cat dcolon ls32, ha_address2], [Ch 58 58, Rep 0 1 h16_colon, h16, Cat
        dcolon ls32, ha_address2], [Cat dcolon h16, ha_address2], [Ch 58 58, Rep 0 2 h16_colon,
        h16, Cat dcolon h16, ha_address2], [dcolon, ha_address2], [Ch 58 58, Rep 0 3 h16_colon,
        h16, dcolon, ha_address2]]]])
      else
      if s = 231 then ([-128, 48, 58, 59, 65, 71, 97, 103], [[[], [[Rep 3 3 h16_colon, ls32, Ch 32
        32], [Ch 58 58, Cat (Rep 2 2 h16_colon) ls32, Ch 32 32], [Ch 58 58, Cat h16_colon ls32, Ch
        32 32], [h16, Cat dcolon (Cat h16_colon ls32), Ch 32 32], [Ch 58 58, ls32, Ch 32 32], [Rep
        0 1 h16_colon, h16, Cat dcolon ls32, Ch 32 32], [Ch 58 58, h16, Ch 32 32], [Rep 0 2
        h16_colon, h16, Cat dcolon h16, Ch 32 32], [Ch 58 58, Ch 32 32], [Rep 0 3 h16_colon, h16,
        dcolon, Ch 32 32]], [[Rep 3 3 h16_colon, ls32, ha_to_port], [Ch 58 58, Cat (Rep 2 2
        h16_colon) ls32, ha_to_port], [Ch 58 58, Cat h16_colon ls32, ha_to_port], [h16, Cat dcolon
        (Cat h16_colon ls32), ha_to_port], [Ch 58 58, ls32, ha_to_port], [Rep 0 1 h16_colon, h16,
        Cat dcolon ls32, ha_to_port], [Ch 58 58, h16, ha_to_port], [Rep 0 2 h16_colon, h16, Cat
        dcolon h16, ha_to_port], [Ch 58 58, ha_to_port], [Rep 0 3 h16_colon, h16, dcolon,
        ha_to_port]], [[Rep 3 3 h16_colon, ls32, ha_to_end], [Ch 58 58, Cat (Rep 2 2 h16_colon)
        ls32, ha_to_end], [Ch 58 58, Cat h16_colon ls32, ha_to_end], [h16, Cat dcolon (Cat
        h16_colon ls32), ha_to_end], [Ch 58 58, ls32, ha_to_end], [Rep 0 1 h16_colon, h16, Cat
        dcolon ls32, ha_to_end], [Ch 58 58, h16, ha_to_end], [Rep 0 2 h16_colon, h16, Cat dcolon
        h16, ha_to_end], [Ch 58 58, ha_to_end], [Rep 0 3 h16_colon, h16, dcolon, ha_to_end]], [],
        [[Rep 3 3 h16_colon, ls32, ha_address2], [Ch 58 58, Cat (Rep 2 2 h16_colon) ls32,
        ha_address2], [Ch 58 58, Cat h16_colon ls32, ha_address2], [h16, Cat dcolon (Cat h16_colon
        ls32), ha_address2], [Ch 58 58, ls32, ha_address2], [Rep 0 1 h16_colon, h16, Cat dcolon
        ls32, ha_address2], [Ch 58 58, h16, ha_address2], [Rep 0 2 h16_colon, h16, Cat dcolon h16,
        ha_address2], [Ch 58 58, ha_address2], [Rep 0 3 h16_colon, h16, dcolon, ha_address2]]]])
      else
      ([-128, 48, 58, 59, 65, 71, 97, 103], [[[], [[Rep 0 3 HEXDIG, Ch 58 58, Rep 2 2 h16_colon,
        ls32, Ch 32 32], [Rep 0 3 HEXDIG, Cat dcolon (Cat h16_colon ls32), Ch 32 32], [Rep 0 3
        HEXDIG, Cat dcolon ls32, Ch 32 32], [Rep 0 3 HEXDIG, Ch 58 58, h16, Cat dcolon ls32, Ch 32
        32], [Rep 0 3 HEXDIG, Cat dcolon h16, Ch 32 32], [Rep 0 3 HEXDIG, Ch 58 58, Rep 0 1
        h16_colon, h16, Cat dcolon h16, Ch 32 32], [Rep 0 3 HEXDIG, dcolon, Ch 32 32], [Rep 0 3
        HEXDIG, Ch 58 58, Rep 0 2 h16_colon, h16, dcolon, Ch 32 32]], [[Rep 0 3 HEXDIG, Ch 58 58,
        Rep 2 2 h16_colon, ls32, ha_to_port], [Rep 0 3 HEXDIG, Cat dcolon (Cat h16_colon ls32),
        ha_to_port], [Rep 0 3 HEXDIG, Cat dcolon ls32, ha_to_port], [Rep 0 3 HEXDIG, Ch 58 58,
        h16, Cat dcolon ls32, ha_to_port], [Rep 0 3 HEXDIG, Cat dcolon h16, ha_to_port], [Rep 0 3
        HEXDIG, Ch 58 58, Rep 0 1 h16_colon, h16, Cat dcolon h16, ha_to_port], [Rep 0 3 HEXDIG,
        dcolon, ha_to_port], [Rep 0 3 HEXDIG, Ch 58 58, Rep 0 2 h16_colon, h16, dcolon,
        ha_to_port]], [[Rep 0 3 HEXDIG, Ch 58 58, Rep 2 2 h16_colon, ls32, ha_to_end], [Rep 0 3
        HEXDIG, Cat dcolon (Cat h16_colon ls32), ha_to_end], [Rep 0 3 HEXDIG, Cat dcolon ls32,
        ha_to_end], [Rep 0 3 HEXDIG, Ch 58 58, h16, Cat dcolon ls32, ha_to_end], [Rep 0 3 HEXDIG,
        Cat dcolon h16, ha_to_end], [Rep 0 3 HEXDIG, Ch 58 58, Rep 0 1 h16_colon, h16, Cat dcolon
        h16, ha_to_end], [Rep 0 3 HEXDIG, dcolon, ha_to_end], [Rep 0 3 HEXDIG, Ch 58 58, Rep 0 2
        h16_colon, h16, dcolon, ha_to_end]], [], [[Rep 0 3 HEXDIG, Ch 58 58, Rep 2 2 h16_colon,
        ls32, ha_address2], [Rep 0 3 HEXDIG, Cat dcolon (Cat h16_colon ls32), ha_address2], [Rep 0
        3 HEXDIG, Cat dcolon ls32, ha_address2], [Rep 0 3 HEXDIG, Ch 58 58, h16, Cat dcolon ls32,
        ha_address2], [Rep 0 3 HEXDIG, Cat dcolon h16, ha_address2], [Rep 0 3 HEXDIG, Ch 58 58,
        Rep 0 1 h16_colon, h16, Cat dcolon h16, ha_address2], [Rep 0 3 HEXDIG, dcolon,
        ha_address2], [Rep 0 3 HEXDIG, Ch 58 58, Rep 0 2 h16_colon, h16, dcolon, ha_address2]]]]))"

definition ha_expects_30 :: certificate where
  "ha_expects_30 s =
     (if s = 233 then ([-128, 48, 58, 59, 65, 71, 97, 103], [[[], [[Rep 0 2 HEXDIG, Ch 58 58, Rep
        2 2 h16_colon, ls32, Ch 32 32], [Rep 0 2 HEXDIG, Cat dcolon (Cat h16_colon ls32), Ch 32
        32], [Rep 0 2 HEXDIG, Cat dcolon ls32, Ch 32 32], [Rep 0 2 HEXDIG, Ch 58 58, h16, Cat
        dcolon ls32, Ch 32 32], [Rep 0 2 HEXDIG, Cat dcolon h16, Ch 32 32], [Rep 0 2 HEXDIG, Ch 58
        58, Rep 0 1 h16_colon, h16, Cat dcolon h16, Ch 32 32], [Rep 0 2 HEXDIG, dcolon, Ch 32 32],
        [Rep 0 2 HEXDIG, Ch 58 58, Rep 0 2 h16_colon, h16, dcolon, Ch 32 32]], [[Rep 0 2 HEXDIG,
        Ch 58 58, Rep 2 2 h16_colon, ls32, ha_to_port], [Rep 0 2 HEXDIG, Cat dcolon (Cat h16_colon
        ls32), ha_to_port], [Rep 0 2 HEXDIG, Cat dcolon ls32, ha_to_port], [Rep 0 2 HEXDIG, Ch 58
        58, h16, Cat dcolon ls32, ha_to_port], [Rep 0 2 HEXDIG, Cat dcolon h16, ha_to_port], [Rep
        0 2 HEXDIG, Ch 58 58, Rep 0 1 h16_colon, h16, Cat dcolon h16, ha_to_port], [Rep 0 2
        HEXDIG, dcolon, ha_to_port], [Rep 0 2 HEXDIG, Ch 58 58, Rep 0 2 h16_colon, h16, dcolon,
        ha_to_port]], [[Rep 0 2 HEXDIG, Ch 58 58, Rep 2 2 h16_colon, ls32, ha_to_end], [Rep 0 2
        HEXDIG, Cat dcolon (Cat h16_colon ls32), ha_to_end], [Rep 0 2 HEXDIG, Cat dcolon ls32,
        ha_to_end], [Rep 0 2 HEXDIG, Ch 58 58, h16, Cat dcolon ls32, ha_to_end], [Rep 0 2 HEXDIG,
        Cat dcolon h16, ha_to_end], [Rep 0 2 HEXDIG, Ch 58 58, Rep 0 1 h16_colon, h16, Cat dcolon
        h16, ha_to_end], [Rep 0 2 HEXDIG, dcolon, ha_to_end], [Rep 0 2 HEXDIG, Ch 58 58, Rep 0 2
        h16_colon, h16, dcolon, ha_to_end]], [], [[Rep 0 2 HEXDIG, Ch 58 58, Rep 2 2 h16_colon,
        ls32, ha_address2], [Rep 0 2 HEXDIG, Cat dcolon (Cat h16_colon ls32), ha_address2], [Rep 0
        2 HEXDIG, Cat dcolon ls32, ha_address2], [Rep 0 2 HEXDIG, Ch 58 58, h16, Cat dcolon ls32,
        ha_address2], [Rep 0 2 HEXDIG, Cat dcolon h16, ha_address2], [Rep 0 2 HEXDIG, Ch 58 58,
        Rep 0 1 h16_colon, h16, Cat dcolon h16, ha_address2], [Rep 0 2 HEXDIG, dcolon,
        ha_address2], [Rep 0 2 HEXDIG, Ch 58 58, Rep 0 2 h16_colon, h16, dcolon, ha_address2]]]])
      else
      if s = 234 then ([-128, 48, 58, 59, 65, 71, 97, 103], [[[], [[Rep 0 1 HEXDIG, Ch 58 58, Rep
        2 2 h16_colon, ls32, Ch 32 32], [Rep 0 1 HEXDIG, Cat dcolon (Cat h16_colon ls32), Ch 32
        32], [Rep 0 1 HEXDIG, Cat dcolon ls32, Ch 32 32], [Rep 0 1 HEXDIG, Ch 58 58, h16, Cat
        dcolon ls32, Ch 32 32], [Rep 0 1 HEXDIG, Cat dcolon h16, Ch 32 32], [Rep 0 1 HEXDIG, Ch 58
        58, Rep 0 1 h16_colon, h16, Cat dcolon h16, Ch 32 32], [Rep 0 1 HEXDIG, dcolon, Ch 32 32],
        [Rep 0 1 HEXDIG, Ch 58 58, Rep 0 2 h16_colon, h16, dcolon, Ch 32 32]], [[Rep 0 1 HEXDIG,
        Ch 58 58, Rep 2 2 h16_colon, ls32, ha_to_port], [Rep 0 1 HEXDIG, Cat dcolon (Cat h16_colon
        ls32), ha_to_port], [Rep 0 1 HEXDIG, Cat dcolon ls32, ha_to_port], [Rep 0 1 HEXDIG, Ch 58
        58, h16, Cat dcolon ls32, ha_to_port], [Rep 0 1 HEXDIG, Cat dcolon h16, ha_to_port], [Rep
        0 1 HEXDIG, Ch 58 58, Rep 0 1 h16_colon, h16, Cat dcolon h16, ha_to_port], [Rep 0 1
        HEXDIG, dcolon, ha_to_port], [Rep 0 1 HEXDIG, Ch 58 58, Rep 0 2 h16_colon, h16, dcolon,
        ha_to_port]], [[Rep 0 1 HEXDIG, Ch 58 58, Rep 2 2 h16_colon, ls32, ha_to_end], [Rep 0 1
        HEXDIG, Cat dcolon (Cat h16_colon ls32), ha_to_end], [Rep 0 1 HEXDIG, Cat dcolon ls32,
        ha_to_end], [Rep 0 1 HEXDIG, Ch 58 58, h16, Cat dcolon ls32, ha_to_end], [Rep 0 1 HEXDIG,
        Cat dcolon h16, ha_to_end], [Rep 0 1 HEXDIG, Ch 58 58, Rep 0 1 h16_colon, h16, Cat dcolon
        h16, ha_to_end], [Rep 0 1 HEXDIG, dcolon, ha_to_end], [Rep 0 1 HEXDIG, Ch 58 58, Rep 0 2
        h16_colon, h16, dcolon, ha_to_end]], [], [[Rep 0 1 HEXDIG, Ch 58 58, Rep 2 2 h16_colon,
        ls32, ha_address2], [Rep 0 1 HEXDIG, Cat dcolon (Cat h16_colon ls32), ha_address2], [Rep 0
        1 HEXDIG, Cat dcolon ls32, ha_address2], [Rep 0 1 HEXDIG, Ch 58 58, h16, Cat dcolon ls32,
        ha_address2], [Rep 0 1 HEXDIG, Cat dcolon h16, ha_address2], [Rep 0 1 HEXDIG, Ch 58 58,
        Rep 0 1 h16_colon, h16, Cat dcolon h16, ha_address2], [Rep 0 1 HEXDIG, dcolon,
        ha_address2], [Rep 0 1 HEXDIG, Ch 58 58, Rep 0 2 h16_colon, h16, dcolon, ha_address2]]]])
      else
      if s = 235 then ([-128, 58, 59], [[[], [[Ch 58 58, Rep 2 2 h16_colon, ls32, Ch 32 32], [Cat
        dcolon (Cat h16_colon ls32), Ch 32 32], [Cat dcolon ls32, Ch 32 32], [Ch 58 58, h16, Cat
        dcolon ls32, Ch 32 32], [Cat dcolon h16, Ch 32 32], [Ch 58 58, Rep 0 1 h16_colon, h16, Cat
        dcolon h16, Ch 32 32], [dcolon, Ch 32 32], [Ch 58 58, Rep 0 2 h16_colon, h16, dcolon, Ch
        32 32]], [[Ch 58 58, Rep 2 2 h16_colon, ls32, ha_to_port], [Cat dcolon (Cat h16_colon
        ls32), ha_to_port], [Cat dcolon ls32, ha_to_port], [Ch 58 58, h16, Cat dcolon ls32,
        ha_to_port], [Cat dcolon h16, ha_to_port], [Ch 58 58, Rep 0 1 h16_colon, h16, Cat dcolon
        h16, ha_to_port], [dcolon, ha_to_port], [Ch 58 58, Rep 0 2 h16_colon, h16, dcolon,
        ha_to_port]], [[Ch 58 58, Rep 2 2 h16_colon, ls32, ha_to_end], [Cat dcolon (Cat h16_colon
        ls32), ha_to_end], [Cat dcolon ls32, ha_to_end], [Ch 58 58, h16, Cat dcolon ls32,
        ha_to_end], [Cat dcolon h16, ha_to_end], [Ch 58 58, Rep 0 1 h16_colon, h16, Cat dcolon
        h16, ha_to_end], [dcolon, ha_to_end], [Ch 58 58, Rep 0 2 h16_colon, h16, dcolon,
        ha_to_end]], [], [[Ch 58 58, Rep 2 2 h16_colon, ls32, ha_address2], [Cat dcolon (Cat
        h16_colon ls32), ha_address2], [Cat dcolon ls32, ha_address2], [Ch 58 58, h16, Cat dcolon
        ls32, ha_address2], [Cat dcolon h16, ha_address2], [Ch 58 58, Rep 0 1 h16_colon, h16, Cat
        dcolon h16, ha_address2], [dcolon, ha_address2], [Ch 58 58, Rep 0 2 h16_colon, h16,
        dcolon, ha_address2]]]])
      else
      if s = 236 then ([-128, 48, 58, 59, 65, 71, 97, 103], [[[], [[Rep 2 2 h16_colon, ls32, Ch 32
        32], [Ch 58 58, Cat h16_colon ls32, Ch 32 32], [Ch 58 58, ls32, Ch 32 32], [h16, Cat
        dcolon ls32, Ch 32 32], [Ch 58 58, h16, Ch 32 32], [Rep 0 1 h16_colon, h16, Cat dcolon
        h16, Ch 32 32], [Ch 58 58, Ch 32 32], [Rep 0 2 h16_colon, h16, dcolon, Ch 32 32]], [[Rep 2
        2 h16_colon, ls32, ha_to_port], [Ch 58 58, Cat h16_colon ls32, ha_to_port], [Ch 58 58,
        ls32, ha_to_port], [h16, Cat dcolon ls32, ha_to_port], [Ch 58 58, h16, ha_to_port], [Rep 0
        1 h16_colon, h16, Cat dcolon h16, ha_to_port], [Ch 58 58, ha_to_port], [Rep 0 2 h16_colon,
        h16, dcolon, ha_to_port]], [[Rep 2 2 h16_colon, ls32, ha_to_end], [Ch 58 58, Cat h16_colon
        ls32, ha_to_end], [Ch 58 58, ls32, ha_to_end], [h16, Cat dcolon ls32, ha_to_end], [Ch 58
        58, h16, ha_to_end], [Rep 0 1 h16_colon, h16, Cat dcolon h16, ha_to_end], [Ch 58 58,
        ha_to_end], [Rep 0 2 h16_colon, h16, dcolon, ha_to_end]], [], [[Rep 2 2 h16_colon, ls32,
        ha_address2], [Ch 58 58, Cat h16_colon ls32, ha_address2], [Ch 58 58, ls32, ha_address2],
        [h16, Cat dcolon ls32, ha_address2], [Ch 58 58, h16, ha_address2], [Rep 0 1 h16_colon,
        h16, Cat dcolon h16, ha_address2], [Ch 58 58, ha_address2], [Rep 0 2 h16_colon, h16,
        dcolon, ha_address2]]]])
      else
      if s = 237 then ([-128, 48, 58, 59, 65, 71, 97, 103], [[[], [[Rep 0 3 HEXDIG, Ch 58 58,
        h16_colon, ls32, Ch 32 32], [Rep 0 3 HEXDIG, Cat dcolon ls32, Ch 32 32], [Rep 0 3 HEXDIG,
        Cat dcolon h16, Ch 32 32], [Rep 0 3 HEXDIG, Ch 58 58, h16, Cat dcolon h16, Ch 32 32], [Rep
        0 3 HEXDIG, dcolon, Ch 32 32], [Rep 0 3 HEXDIG, Ch 58 58, Rep 0 1 h16_colon, h16, dcolon,
        Ch 32 32]], [[Rep 0 3 HEXDIG, Ch 58 58, h16_colon, ls32, ha_to_port], [Rep 0 3 HEXDIG, Cat
        dcolon ls32, ha_to_port], [Rep 0 3 HEXDIG, Cat dcolon h16, ha_to_port], [Rep 0 3 HEXDIG,
        Ch 58 58, h16, Cat dcolon h16, ha_to_port], [Rep 0 3 HEXDIG, dcolon, ha_to_port], [Rep 0 3
        HEXDIG, Ch 58 58, Rep 0 1 h16_colon, h16, dcolon, ha_to_port]], [[Rep 0 3 HEXDIG, Ch 58
        58, h16_colon, ls32, ha_to_end], [Rep 0 3 HEXDIG, Cat dcolon ls32, ha_to_end], [Rep 0 3
        HEXDIG, Cat dcolon h16, ha_to_end], [Rep 0 3 HEXDIG, Ch 58 58, h16, Cat dcolon h16,
        ha_to_end], [Rep 0 3 HEXDIG, dcolon, ha_to_end], [Rep 0 3 HEXDIG, Ch 58 58, Rep 0 1
        h16_colon, h16, dcolon, ha_to_end]], [], [[Rep 0 3 HEXDIG, Ch 58 58, h16_colon, ls32,
        ha_address2], [Rep 0 3 HEXDIG, Cat dcolon ls32, ha_address2], [Rep 0 3 HEXDIG, Cat dcolon
        h16, ha_address2], [Rep 0 3 HEXDIG, Ch 58 58, h16, Cat dcolon h16, ha_address2], [Rep 0 3
        HEXDIG, dcolon, ha_address2], [Rep 0 3 HEXDIG, Ch 58 58, Rep 0 1 h16_colon, h16, dcolon,
        ha_address2]]]])
      else
      if s = 238 then ([-128, 48, 58, 59, 65, 71, 97, 103], [[[], [[Rep 0 2 HEXDIG, Ch 58 58,
        h16_colon, ls32, Ch 32 32], [Rep 0 2 HEXDIG, Cat dcolon ls32, Ch 32 32], [Rep 0 2 HEXDIG,
        Cat dcolon h16, Ch 32 32], [Rep 0 2 HEXDIG, Ch 58 58, h16, Cat dcolon h16, Ch 32 32], [Rep
        0 2 HEXDIG, dcolon, Ch 32 32], [Rep 0 2 HEXDIG, Ch 58 58, Rep 0 1 h16_colon, h16, dcolon,
        Ch 32 32]], [[Rep 0 2 HEXDIG, Ch 58 58, h16_colon, ls32, ha_to_port], [Rep 0 2 HEXDIG, Cat
        dcolon ls32, ha_to_port], [Rep 0 2 HEXDIG, Cat dcolon h16, ha_to_port], [Rep 0 2 HEXDIG,
        Ch 58 58, h16, Cat dcolon h16, ha_to_port], [Rep 0 2 HEXDIG, dcolon, ha_to_port], [Rep 0 2
        HEXDIG, Ch 58 58, Rep 0 1 h16_colon, h16, dcolon, ha_to_port]], [[Rep 0 2 HEXDIG, Ch 58
        58, h16_colon, ls32, ha_to_end], [Rep 0 2 HEXDIG, Cat dcolon ls32, ha_to_end], [Rep 0 2
        HEXDIG, Cat dcolon h16, ha_to_end], [Rep 0 2 HEXDIG, Ch 58 58, h16, Cat dcolon h16,
        ha_to_end], [Rep 0 2 HEXDIG, dcolon, ha_to_end], [Rep 0 2 HEXDIG, Ch 58 58, Rep 0 1
        h16_colon, h16, dcolon, ha_to_end]], [], [[Rep 0 2 HEXDIG, Ch 58 58, h16_colon, ls32,
        ha_address2], [Rep 0 2 HEXDIG, Cat dcolon ls32, ha_address2], [Rep 0 2 HEXDIG, Cat dcolon
        h16, ha_address2], [Rep 0 2 HEXDIG, Ch 58 58, h16, Cat dcolon h16, ha_address2], [Rep 0 2
        HEXDIG, dcolon, ha_address2], [Rep 0 2 HEXDIG, Ch 58 58, Rep 0 1 h16_colon, h16, dcolon,
        ha_address2]]]])
      else
      if s = 239 then ([-128, 48, 58, 59, 65, 71, 97, 103], [[[], [[Rep 0 1 HEXDIG, Ch 58 58,
        h16_colon, ls32, Ch 32 32], [Rep 0 1 HEXDIG, Cat dcolon ls32, Ch 32 32], [Rep 0 1 HEXDIG,
        Cat dcolon h16, Ch 32 32], [Rep 0 1 HEXDIG, Ch 58 58, h16, Cat dcolon h16, Ch 32 32], [Rep
        0 1 HEXDIG, dcolon, Ch 32 32], [Rep 0 1 HEXDIG, Ch 58 58, Rep 0 1 h16_colon, h16, dcolon,
        Ch 32 32]], [[Rep 0 1 HEXDIG, Ch 58 58, h16_colon, ls32, ha_to_port], [Rep 0 1 HEXDIG, Cat
        dcolon ls32, ha_to_port], [Rep 0 1 HEXDIG, Cat dcolon h16, ha_to_port], [Rep 0 1 HEXDIG,
        Ch 58 58, h16, Cat dcolon h16, ha_to_port], [Rep 0 1 HEXDIG, dcolon, ha_to_port], [Rep 0 1
        HEXDIG, Ch 58 58, Rep 0 1 h16_colon, h16, dcolon, ha_to_port]], [[Rep 0 1 HEXDIG, Ch 58
        58, h16_colon, ls32, ha_to_end], [Rep 0 1 HEXDIG, Cat dcolon ls32, ha_to_end], [Rep 0 1
        HEXDIG, Cat dcolon h16, ha_to_end], [Rep 0 1 HEXDIG, Ch 58 58, h16, Cat dcolon h16,
        ha_to_end], [Rep 0 1 HEXDIG, dcolon, ha_to_end], [Rep 0 1 HEXDIG, Ch 58 58, Rep 0 1
        h16_colon, h16, dcolon, ha_to_end]], [], [[Rep 0 1 HEXDIG, Ch 58 58, h16_colon, ls32,
        ha_address2], [Rep 0 1 HEXDIG, Cat dcolon ls32, ha_address2], [Rep 0 1 HEXDIG, Cat dcolon
        h16, ha_address2], [Rep 0 1 HEXDIG, Ch 58 58, h16, Cat dcolon h16, ha_address2], [Rep 0 1
        HEXDIG, dcolon, ha_address2], [Rep 0 1 HEXDIG, Ch 58 58, Rep 0 1 h16_colon, h16, dcolon,
        ha_address2]]]])
      else
      ([-128, 58, 59], [[[], [[Ch 58 58, h16_colon, ls32, Ch 32 32], [Cat dcolon ls32, Ch 32 32],
        [Cat dcolon h16, Ch 32 32], [Ch 58 58, h16, Cat dcolon h16, Ch 32 32], [dcolon, Ch 32 32],
        [Ch 58 58, Rep 0 1 h16_colon, h16, dcolon, Ch 32 32]], [[Ch 58 58, h16_colon, ls32,
        ha_to_port], [Cat dcolon ls32, ha_to_port], [Cat dcolon h16, ha_to_port], [Ch 58 58, h16,
        Cat dcolon h16, ha_to_port], [dcolon, ha_to_port], [Ch 58 58, Rep 0 1 h16_colon, h16,
        dcolon, ha_to_port]], [[Ch 58 58, h16_colon, ls32, ha_to_end], [Cat dcolon ls32,
        ha_to_end], [Cat dcolon h16, ha_to_end], [Ch 58 58, h16, Cat dcolon h16, ha_to_end],
        [dcolon, ha_to_end], [Ch 58 58, Rep 0 1 h16_colon, h16, dcolon, ha_to_end]], [], [[Ch 58
        58, h16_colon, ls32, ha_address2], [Cat dcolon ls32, ha_address2], [Cat dcolon h16,
        ha_address2], [Ch 58 58, h16, Cat dcolon h16, ha_address2], [dcolon, ha_address2], [Ch 58
        58, Rep 0 1 h16_colon, h16, dcolon, ha_address2]]]]))"

definition ha_expects_31 :: certificate where
  "ha_expects_31 s =
     (if s = 241 then ([-128, 48, 58, 59, 65, 71, 97, 103], [[[], [[h16_colon, ls32, Ch 32 32],
        [Ch 58 58, ls32, Ch 32 32], [Ch 58 58, h16, Ch 32 32], [h16, Cat dcolon h16, Ch 32 32],
        [Ch 58 58, Ch 32 32], [Rep 0 1 h16_colon, h16, dcolon, Ch 32 32]], [[h16_colon, ls32,
        ha_to_port], [Ch 58 58, ls32, ha_to_port], [Ch 58 58, h16, ha_to_port], [h16, Cat dcolon
        h16, ha_to_port], [Ch 58 58, ha_to_port], [Rep 0 1 h16_colon, h16, dcolon, ha_to_port]],
        [[h16_colon, ls32, ha_to_end], [Ch 58 58, ls32, ha_to_end], [Ch 58 58, h16, ha_to_end],
        [h16, Cat dcolon h16, ha_to_end], [Ch 58 58, ha_to_end], [Rep 0 1 h16_colon, h16, dcolon,
        ha_to_end]], [], [[h16_colon, ls32, ha_address2], [Ch 58 58, ls32, ha_address2], [Ch 58
        58, h16, ha_address2], [h16, Cat dcolon h16, ha_address2], [Ch 58 58, ha_address2], [Rep 0
        1 h16_colon, h16, dcolon, ha_address2]]]])
      else
      if s = 242 then ([-128, 48, 58, 59, 65, 71, 97, 103], [[[], [[Rep 0 3 HEXDIG, Ch 58 58,
        ls32, Ch 32 32], [Rep 0 3 HEXDIG, Cat dcolon h16, Ch 32 32], [Rep 0 3 HEXDIG, dcolon, Ch
        32 32], [Rep 0 3 HEXDIG, Ch 58 58, h16, dcolon, Ch 32 32]], [[Rep 0 3 HEXDIG, Ch 58 58,
        ls32, ha_to_port], [Rep 0 3 HEXDIG, Cat dcolon h16, ha_to_port], [Rep 0 3 HEXDIG, dcolon,
        ha_to_port], [Rep 0 3 HEXDIG, Ch 58 58, h16, dcolon, ha_to_port]], [[Rep 0 3 HEXDIG, Ch 58
        58, ls32, ha_to_end], [Rep 0 3 HEXDIG, Cat dcolon h16, ha_to_end], [Rep 0 3 HEXDIG,
        dcolon, ha_to_end], [Rep 0 3 HEXDIG, Ch 58 58, h16, dcolon, ha_to_end]], [], [[Rep 0 3
        HEXDIG, Ch 58 58, ls32, ha_address2], [Rep 0 3 HEXDIG, Cat dcolon h16, ha_address2], [Rep
        0 3 HEXDIG, dcolon, ha_address2], [Rep 0 3 HEXDIG, Ch 58 58, h16, dcolon, ha_address2]]]])
      else
      if s = 243 then ([-128, 48, 58, 59, 65, 71, 97, 103], [[[], [[Rep 0 2 HEXDIG, Ch 58 58,
        ls32, Ch 32 32], [Rep 0 2 HEXDIG, Cat dcolon h16, Ch 32 32], [Rep 0 2 HEXDIG, dcolon, Ch
        32 32], [Rep 0 2 HEXDIG, Ch 58 58, h16, dcolon, Ch 32 32]], [[Rep 0 2 HEXDIG, Ch 58 58,
        ls32, ha_to_port], [Rep 0 2 HEXDIG, Cat dcolon h16, ha_to_port], [Rep 0 2 HEXDIG, dcolon,
        ha_to_port], [Rep 0 2 HEXDIG, Ch 58 58, h16, dcolon, ha_to_port]], [[Rep 0 2 HEXDIG, Ch 58
        58, ls32, ha_to_end], [Rep 0 2 HEXDIG, Cat dcolon h16, ha_to_end], [Rep 0 2 HEXDIG,
        dcolon, ha_to_end], [Rep 0 2 HEXDIG, Ch 58 58, h16, dcolon, ha_to_end]], [], [[Rep 0 2
        HEXDIG, Ch 58 58, ls32, ha_address2], [Rep 0 2 HEXDIG, Cat dcolon h16, ha_address2], [Rep
        0 2 HEXDIG, dcolon, ha_address2], [Rep 0 2 HEXDIG, Ch 58 58, h16, dcolon, ha_address2]]]])
      else
      if s = 244 then ([-128, 48, 58, 59, 65, 71, 97, 103], [[[], [[Rep 0 1 HEXDIG, Ch 58 58,
        ls32, Ch 32 32], [Rep 0 1 HEXDIG, Cat dcolon h16, Ch 32 32], [Rep 0 1 HEXDIG, dcolon, Ch
        32 32], [Rep 0 1 HEXDIG, Ch 58 58, h16, dcolon, Ch 32 32]], [[Rep 0 1 HEXDIG, Ch 58 58,
        ls32, ha_to_port], [Rep 0 1 HEXDIG, Cat dcolon h16, ha_to_port], [Rep 0 1 HEXDIG, dcolon,
        ha_to_port], [Rep 0 1 HEXDIG, Ch 58 58, h16, dcolon, ha_to_port]], [[Rep 0 1 HEXDIG, Ch 58
        58, ls32, ha_to_end], [Rep 0 1 HEXDIG, Cat dcolon h16, ha_to_end], [Rep 0 1 HEXDIG,
        dcolon, ha_to_end], [Rep 0 1 HEXDIG, Ch 58 58, h16, dcolon, ha_to_end]], [], [[Rep 0 1
        HEXDIG, Ch 58 58, ls32, ha_address2], [Rep 0 1 HEXDIG, Cat dcolon h16, ha_address2], [Rep
        0 1 HEXDIG, dcolon, ha_address2], [Rep 0 1 HEXDIG, Ch 58 58, h16, dcolon, ha_address2]]]])
      else
      if s = 245 then ([-128, 58, 59], [[[], [[Ch 58 58, ls32, Ch 32 32], [Cat dcolon h16, Ch 32
        32], [dcolon, Ch 32 32], [Ch 58 58, h16, dcolon, Ch 32 32]], [[Ch 58 58, ls32,
        ha_to_port], [Cat dcolon h16, ha_to_port], [dcolon, ha_to_port], [Ch 58 58, h16, dcolon,
        ha_to_port]], [[Ch 58 58, ls32, ha_to_end], [Cat dcolon h16, ha_to_end], [dcolon,
        ha_to_end], [Ch 58 58, h16, dcolon, ha_to_end]], [], [[Ch 58 58, ls32, ha_address2], [Cat
        dcolon h16, ha_address2], [dcolon, ha_address2], [Ch 58 58, h16, dcolon, ha_address2]]]])
      else
      if s = 246 then ([-128, 48, 49, 50, 51, 58, 59, 65, 71, 97, 103], [[[], [[ls32, Ch 32 32],
        [Ch 58 58, h16, Ch 32 32], [Ch 58 58, Ch 32 32], [h16, dcolon, Ch 32 32]], [[ls32,
        ha_to_port], [Ch 58 58, h16, ha_to_port], [Ch 58 58, ha_to_port], [h16, dcolon,
        ha_to_port]], [[ls32, ha_to_end], [Ch 58 58, h16, ha_to_end], [Ch 58 58, ha_to_end], [h16,
        dcolon, ha_to_end]], [], [[ls32, ha_address2], [Ch 58 58, h16, ha_address2], [Ch 58 58,
        ha_address2], [h16, dcolon, ha_address2]]]])
      else
      if s = 247 then ([-128, 46, 47, 48, 58, 59, 65, 71, 97, 103], [[[], [[Rep 0 3 HEXDIG, Cat
        (Ch 58 58) h16, Ch 32 32], [Cat (Ch 46 46) (Cat dec_octet (Cat (Ch 46 46) (Cat dec_octet
        (Cat (Ch 46 46) dec_octet)))), Ch 32 32], [Rep 0 3 HEXDIG, dcolon, Ch 32 32]], [[Rep 0 3
        HEXDIG, Cat (Ch 58 58) h16, ha_to_port], [Cat (Ch 46 46) (Cat dec_octet (Cat (Ch 46 46)
        (Cat dec_octet (Cat (Ch 46 46) dec_octet)))), ha_to_port], [Rep 0 3 HEXDIG, dcolon,
        ha_to_port]], [[Rep 0 3 HEXDIG, Cat (Ch 58 58) h16, ha_to_end], [Cat (Ch 46 46) (Cat
        dec_octet (Cat (Ch 46 46) (Cat dec_octet (Cat (Ch 46 46) dec_octet)))), ha_to_end], [Rep 0
        3 HEXDIG, dcolon, ha_to_end]], [], [[Rep 0 3 HEXDIG, Cat (Ch 58 58) h16, ha_address2],
        [Cat (Ch 46 46) (Cat dec_octet (Cat (Ch 46 46) (Cat dec_octet (Cat (Ch 46 46)
        dec_octet)))), ha_address2], [Rep 0 3 HEXDIG, dcolon, ha_address2]]]])
      else
      ([-128, 48, 49, 50, 51, 58], [[[], [[Cat dec_octet (Cat (Ch 46 46) (Cat dec_octet (Cat (Ch
        46 46) dec_octet))), Ch 32 32]], [[Cat dec_octet (Cat (Ch 46 46) (Cat dec_octet (Cat (Ch
        46 46) dec_octet))), ha_to_port]], [[Cat dec_octet (Cat (Ch 46 46) (Cat dec_octet (Cat (Ch
        46 46) dec_octet))), ha_to_end]], [], [[Cat dec_octet (Cat (Ch 46 46) (Cat dec_octet (Cat
        (Ch 46 46) dec_octet))), ha_address2]]]]))"

definition ha_expects_32 :: certificate where
  "ha_expects_32 s =
     (if s = 249 then ([-128, 46, 47], [[[], [[Cat (Ch 46 46) (Cat dec_octet (Cat (Ch 46 46)
        dec_octet)), Ch 32 32]], [[Cat (Ch 46 46) (Cat dec_octet (Cat (Ch 46 46) dec_octet)),
        ha_to_port]], [[Cat (Ch 46 46) (Cat dec_octet (Cat (Ch 46 46) dec_octet)), ha_to_end]],
        [], [[Cat (Ch 46 46) (Cat dec_octet (Cat (Ch 46 46) dec_octet)), ha_address2]]]])
      else
      if s = 250 then ([-128, 48, 49, 50, 51, 58], [[[], [[Cat dec_octet (Cat (Ch 46 46)
        dec_octet), Ch 32 32]], [[Cat dec_octet (Cat (Ch 46 46) dec_octet), ha_to_port]], [[Cat
        dec_octet (Cat (Ch 46 46) dec_octet), ha_to_end]], [], [[Cat dec_octet (Cat (Ch 46 46)
        dec_octet), ha_address2]]]])
      else
      if s = 251 then ([-128, 46, 47], [[[], [[Cat (Ch 46 46) dec_octet, Ch 32 32]], [[Cat (Ch 46
        46) dec_octet, ha_to_port]], [[Cat (Ch 46 46) dec_octet, ha_to_end]], [], [[Cat (Ch 46 46)
        dec_octet, ha_address2]]]])
      else
      if s = 252 then ([-128, 48, 49, 50, 51, 58], [[[], [[dec_octet, Ch 32 32]], [[dec_octet,
        ha_to_port]], [[dec_octet, ha_to_end]], [], [[dec_octet, ha_address2]]]])
      else
      if s = 253 then ([-128, 32, 33], [[[], [[Ch 32 32]], [[ha_to_port]], [[ha_to_end]], [],
        [[ha_address2]]]])
      else
      if s = 254 then ([-128, 32, 33, 48, 58], [[[], [[Ch 32 32], [DIGIT, Ch 32 32], [Rep 2 2
        DIGIT, Ch 32 32]], [[ha_to_port], [DIGIT, ha_to_port], [Rep 2 2 DIGIT, ha_to_port]],
        [[ha_to_end], [DIGIT, ha_to_end], [Rep 2 2 DIGIT, ha_to_end]], [], [[ha_address2], [DIGIT,
        ha_address2], [Rep 2 2 DIGIT, ha_address2]]]])
      else
      if s = 255 then ([-128, 32, 33, 48, 58], [[[], [[Ch 32 32], [DIGIT, Ch 32 32]],
        [[ha_to_port], [DIGIT, ha_to_port]], [[ha_to_end], [DIGIT, ha_to_end]], [],
        [[ha_address2], [DIGIT, ha_address2]]]])
      else
      ([-128, 32, 33, 48, 53, 54, 58], [[[], [[Ch 32 32], [DIGIT, Ch 32 32], [Cat (Ch 48 52)
        DIGIT, Ch 32 32], [Cat (Ch 53 53) (Ch 48 53), Ch 32 32]], [[ha_to_port], [DIGIT,
        ha_to_port], [Cat (Ch 48 52) DIGIT, ha_to_port], [Cat (Ch 53 53) (Ch 48 53), ha_to_port]],
        [[ha_to_end], [DIGIT, ha_to_end], [Cat (Ch 48 52) DIGIT, ha_to_end], [Cat (Ch 53 53) (Ch
        48 53), ha_to_end]], [], [[ha_address2], [DIGIT, ha_address2], [Cat (Ch 48 52) DIGIT,
        ha_address2], [Cat (Ch 53 53) (Ch 48 53), ha_address2]]]]))"

definition ha_expects_33 :: certificate where
  "ha_expects_33 s =
     (if s = 257 then ([-128, 32, 33, 48, 54], [[[], [[Ch 32 32], [Ch 48 53, Ch 32 32]],
        [[ha_to_port], [Ch 48 53, ha_to_port]], [[ha_to_end], [Ch 48 53, ha_to_end]], [],
        [[ha_address2], [Ch 48 53, ha_address2]]]])
      else
      if s = 258 then ([-128, 46, 47, 48, 58], [[[], [[Cat (Ch 46 46) dec_octet, Ch 32 32],
        [DIGIT, Cat (Ch 46 46) dec_octet, Ch 32 32], [Rep 2 2 DIGIT, Cat (Ch 46 46) dec_octet, Ch
        32 32]], [[Cat (Ch 46 46) dec_octet, ha_to_port], [DIGIT, Cat (Ch 46 46) dec_octet,
        ha_to_port], [Rep 2 2 DIGIT, Cat (Ch 46 46) dec_octet, ha_to_port]], [[Cat (Ch 46 46)
        dec_octet, ha_to_end], [DIGIT, Cat (Ch 46 46) dec_octet, ha_to_end], [Rep 2 2 DIGIT, Cat
        (Ch 46 46) dec_octet, ha_to_end]], [], [[Cat (Ch 46 46) dec_octet, ha_address2], [DIGIT,
        Cat (Ch 46 46) dec_octet, ha_address2], [Rep 2 2 DIGIT, Cat (Ch 46 46) dec_octet,
        ha_address2]]]])
      else
      if s = 259 then ([-128, 46, 47, 48, 58], [[[], [[Cat (Ch 46 46) dec_octet, Ch 32 32],
        [DIGIT, Cat (Ch 46 46) dec_octet, Ch 32 32]], [[Cat (Ch 46 46) dec_octet, ha_to_port],
        [DIGIT, Cat (Ch 46 46) dec_octet, ha_to_port]], [[Cat (Ch 46 46) dec_octet, ha_to_end],
        [DIGIT, Cat (Ch 46 46) dec_octet, ha_to_end]], [], [[Cat (Ch 46 46) dec_octet,
        ha_address2], [DIGIT, Cat (Ch 46 46) dec_octet, ha_address2]]]])
      else
      if s = 260 then ([-128, 46, 47, 48, 53, 54, 58], [[[], [[Cat (Ch 46 46) dec_octet, Ch 32
        32], [DIGIT, Cat (Ch 46 46) dec_octet, Ch 32 32], [Cat (Ch 48 52) DIGIT, Cat (Ch 46 46)
        dec_octet, Ch 32 32], [Cat (Ch 53 53) (Ch 48 53), Cat (Ch 46 46) dec_octet, Ch 32 32]],
        [[Cat (Ch 46 46) dec_octet, ha_to_port], [DIGIT, Cat (Ch 46 46) dec_octet, ha_to_port],
        [Cat (Ch 48 52) DIGIT, Cat (Ch 46 46) dec_octet, ha_to_port], [Cat (Ch 53 53) (Ch 48 53),
        Cat (Ch 46 46) dec_octet, ha_to_port]], [[Cat (Ch 46 46) dec_octet, ha_to_end], [DIGIT,
        Cat (Ch 46 46) dec_octet, ha_to_end], [Cat (Ch 48 52) DIGIT, Cat (Ch 46 46) dec_octet,
        ha_to_end], [Cat (Ch 53 53) (Ch 48 53), Cat (Ch 46 46) dec_octet, ha_to_end]], [], [[Cat
        (Ch 46 46) dec_octet, ha_address2], [DIGIT, Cat (Ch 46 46) dec_octet, ha_address2], [Cat
        (Ch 48 52) DIGIT, Cat (Ch 46 46) dec_octet, ha_address2], [Cat (Ch 53 53) (Ch 48 53), Cat
        (Ch 46 46) dec_octet, ha_address2]]]])
      else
      if s = 261 then ([-128, 46, 47, 48, 54], [[[], [[Cat (Ch 46 46) dec_octet, Ch 32 32], [Ch 48
        53, Cat (Ch 46 46) dec_octet, Ch 32 32]], [[Cat (Ch 46 46) dec_octet, ha_to_port], [Ch 48
        53, Cat (Ch 46 46) dec_octet, ha_to_port]], [[Cat (Ch 46 46) dec_octet, ha_to_end], [Ch 48
        53, Cat (Ch 46 46) dec_octet, ha_to_end]], [], [[Cat (Ch 46 46) dec_octet, ha_address2],
        [Ch 48 53, Cat (Ch 46 46) dec_octet, ha_address2]]]])
      else
      if s = 262 then ([-128, 46, 47, 48, 58], [[[], [[Cat (Ch 46 46) (Cat dec_octet (Cat (Ch 46
        46) dec_octet)), Ch 32 32], [DIGIT, Cat (Ch 46 46) (Cat dec_octet (Cat (Ch 46 46)
        dec_octet)), Ch 32 32], [Rep 2 2 DIGIT, Cat (Ch 46 46) (Cat dec_octet (Cat (Ch 46 46)
        dec_octet)), Ch 32 32]], [[Cat (Ch 46 46) (Cat dec_octet (Cat (Ch 46 46) dec_octet)),
        ha_to_port], [DIGIT, Cat (Ch 46 46) (Cat dec_octet (Cat (Ch 46 46) dec_octet)),
        ha_to_port], [Rep 2 2 DIGIT, Cat (Ch 46 46) (Cat dec_octet (Cat (Ch 46 46) dec_octet)),
        ha_to_port]], [[Cat (Ch 46 46) (Cat dec_octet (Cat (Ch 46 46) dec_octet)), ha_to_end],
        [DIGIT, Cat (Ch 46 46) (Cat dec_octet (Cat (Ch 46 46) dec_octet)), ha_to_end], [Rep 2 2
        DIGIT, Cat (Ch 46 46) (Cat dec_octet (Cat (Ch 46 46) dec_octet)), ha_to_end]], [], [[Cat
        (Ch 46 46) (Cat dec_octet (Cat (Ch 46 46) dec_octet)), ha_address2], [DIGIT, Cat (Ch 46
        46) (Cat dec_octet (Cat (Ch 46 46) dec_octet)), ha_address2], [Rep 2 2 DIGIT, Cat (Ch 46
        46) (Cat dec_octet (Cat (Ch 46 46) dec_octet)), ha_address2]]]])
      else
      if s = 263 then ([-128, 46, 47, 48, 58], [[[], [[Cat (Ch 46 46) (Cat dec_octet (Cat (Ch 46
        46) dec_octet)), Ch 32 32], [DIGIT, Cat (Ch 46 46) (Cat dec_octet (Cat (Ch 46 46)
        dec_octet)), Ch 32 32]], [[Cat (Ch 46 46) (Cat dec_octet (Cat (Ch 46 46) dec_octet)),
        ha_to_port], [DIGIT, Cat (Ch 46 46) (Cat dec_octet (Cat (Ch 46 46) dec_octet)),
        ha_to_port]], [[Cat (Ch 46 46) (Cat dec_octet (Cat (Ch 46 46) dec_octet)), ha_to_end],
        [DIGIT, Cat (Ch 46 46) (Cat dec_octet (Cat (Ch 46 46) dec_octet)), ha_to_end]], [], [[Cat
        (Ch 46 46) (Cat dec_octet (Cat (Ch 46 46) dec_octet)), ha_address2], [DIGIT, Cat (Ch 46
        46) (Cat dec_octet (Cat (Ch 46 46) dec_octet)), ha_address2]]]])
      else
      ([-128, 46, 47, 48, 53, 54, 58], [[[], [[Cat (Ch 46 46) (Cat dec_octet (Cat (Ch 46 46)
        dec_octet)), Ch 32 32], [DIGIT, Cat (Ch 46 46) (Cat dec_octet (Cat (Ch 46 46) dec_octet)),
        Ch 32 32], [Cat (Ch 48 52) DIGIT, Cat (Ch 46 46) (Cat dec_octet (Cat (Ch 46 46)
        dec_octet)), Ch 32 32], [Cat (Ch 53 53) (Ch 48 53), Cat (Ch 46 46) (Cat dec_octet (Cat (Ch
        46 46) dec_octet)), Ch 32 32]], [[Cat (Ch 46 46) (Cat dec_octet (Cat (Ch 46 46)
        dec_octet)), ha_to_port], [DIGIT, Cat (Ch 46 46) (Cat dec_octet (Cat (Ch 46 46)
        dec_octet)), ha_to_port], [Cat (Ch 48 52) DIGIT, Cat (Ch 46 46) (Cat dec_octet (Cat (Ch 46
        46) dec_octet)), ha_to_port], [Cat (Ch 53 53) (Ch 48 53), Cat (Ch 46 46) (Cat dec_octet
        (Cat (Ch 46 46) dec_octet)), ha_to_port]], [[Cat (Ch 46 46) (Cat dec_octet (Cat (Ch 46 46)
        dec_octet)), ha_to_end], [DIGIT, Cat (Ch 46 46) (Cat dec_octet (Cat (Ch 46 46)
        dec_octet)), ha_to_end], [Cat (Ch 48 52) DIGIT, Cat (Ch 46 46) (Cat dec_octet (Cat (Ch 46
        46) dec_octet)), ha_to_end], [Cat (Ch 53 53) (Ch 48 53), Cat (Ch 46 46) (Cat dec_octet
        (Cat (Ch 46 46) dec_octet)), ha_to_end]], [], [[Cat (Ch 46 46) (Cat dec_octet (Cat (Ch 46
        46) dec_octet)), ha_address2], [DIGIT, Cat (Ch 46 46) (Cat dec_octet (Cat (Ch 46 46)
        dec_octet)), ha_address2], [Cat (Ch 48 52) DIGIT, Cat (Ch 46 46) (Cat dec_octet (Cat (Ch
        46 46) dec_octet)), ha_address2], [Cat (Ch 53 53) (Ch 48 53), Cat (Ch 46 46) (Cat
        dec_octet (Cat (Ch 46 46) dec_octet)), ha_address2]]]]))"

definition ha_expects_34 :: certificate where
  "ha_expects_34 s =
     (if s = 265 then ([-128, 46, 47, 48, 54], [[[], [[Cat (Ch 46 46) (Cat dec_octet (Cat (Ch 46
        46) dec_octet)), Ch 32 32], [Ch 48 53, Cat (Ch 46 46) (Cat dec_octet (Cat (Ch 46 46)
        dec_octet)), Ch 32 32]], [[Cat (Ch 46 46) (Cat dec_octet (Cat (Ch 46 46) dec_octet)),
        ha_to_port], [Ch 48 53, Cat (Ch 46 46) (Cat dec_octet (Cat (Ch 46 46) dec_octet)),
        ha_to_port]], [[Cat (Ch 46 46) (Cat dec_octet (Cat (Ch 46 46) dec_octet)), ha_to_end], [Ch
        48 53, Cat (Ch 46 46) (Cat dec_octet (Cat (Ch 46 46) dec_octet)), ha_to_end]], [], [[Cat
        (Ch 46 46) (Cat dec_octet (Cat (Ch 46 46) dec_octet)), ha_address2], [Ch 48 53, Cat (Ch 46
        46) (Cat dec_octet (Cat (Ch 46 46) dec_octet)), ha_address2]]]])
      else
      if s = 266 then ([-128, 48, 58, 59, 65, 71, 97, 103], [[[], [[Rep 0 2 HEXDIG, Cat (Ch 58 58)
        h16, Ch 32 32], [Rep 0 2 HEXDIG, dcolon, Ch 32 32]], [[Rep 0 2 HEXDIG, Cat (Ch 58 58) h16,
        ha_to_port], [Rep 0 2 HEXDIG, dcolon, ha_to_port]], [[Rep 0 2 HEXDIG, Cat (Ch 58 58) h16,
        ha_to_end], [Rep 0 2 HEXDIG, dcolon, ha_to_end]], [], [[Rep 0 2 HEXDIG, Cat (Ch 58 58)
        h16, ha_address2], [Rep 0 2 HEXDIG, dcolon, ha_address2]]]])
      else
      if s = 267 then ([-128, 48, 58, 59, 65, 71, 97, 103], [[[], [[Rep 0 1 HEXDIG, Cat (Ch 58 58)
        h16, Ch 32 32], [Rep 0 1 HEXDIG, dcolon, Ch 32 32]], [[Rep 0 1 HEXDIG, Cat (Ch 58 58) h16,
        ha_to_port], [Rep 0 1 HEXDIG, dcolon, ha_to_port]], [[Rep 0 1 HEXDIG, Cat (Ch 58 58) h16,
        ha_to_end], [Rep 0 1 HEXDIG, dcolon, ha_to_end]], [], [[Rep 0 1 HEXDIG, Cat (Ch 58 58)
        h16, ha_address2], [Rep 0 1 HEXDIG, dcolon, ha_address2]]]])
      else
      if s = 268 then ([-128, 58, 59], [[[], [[Cat (Ch 58 58) h16, Ch 32 32], [dcolon, Ch 32 32]],
        [[Cat (Ch 58 58) h16, ha_to_port], [dcolon, ha_to_port]], [[Cat (Ch 58 58) h16,
        ha_to_end], [dcolon, ha_to_end]], [], [[Cat (Ch 58 58) h16, ha_address2], [dcolon,
        ha_address2]]]])
      else
      if s = 269 then ([-128, 48, 58, 59, 65, 71, 97, 103], [[[], [[h16, Ch 32 32], [Ch 58 58, Ch
        32 32]], [[h16, ha_to_port], [Ch 58 58, ha_to_port]], [[h16, ha_to_end], [Ch 58 58,
        ha_to_end]], [], [[h16, ha_address2], [Ch 58 58, ha_address2]]]])
      else
      if s = 270 then ([-128, 32, 33, 48, 58, 65, 71, 97, 103], [[[], [[Rep 0 3 HEXDIG, Ch 32
        32]], [[Rep 0 3 HEXDIG, ha_to_port]], [[Rep 0 3 HEXDIG, ha_to_end]], [], [[Rep 0 3 HEXDIG,
        ha_address2]]]])
      else
      if s = 271 then ([-128, 32, 33, 48, 58, 65, 71, 97, 103], [[[], [[Rep 0 2 HEXDIG, Ch 32
        32]], [[Rep 0 2 HEXDIG, ha_to_port]], [[Rep 0 2 HEXDIG, ha_to_end]], [], [[Rep 0 2 HEXDIG,
        ha_address2]]]])
      else
      ([-128, 32, 33, 48, 58, 65, 71, 97, 103], [[[], [[Rep 0 1 HEXDIG, Ch 32 32]], [[Rep 0 1
        HEXDIG, ha_to_port]], [[Rep 0 1 HEXDIG, ha_to_end]], [], [[Rep 0 1 HEXDIG,
        ha_address2]]]]))"

definition ha_expects_35 :: certificate where
  "ha_expects_35 s =
     (if s = 273 then ([-128, 46, 47, 48, 58, 59, 65, 71, 97, 103], [[[], [[Rep 0 3 HEXDIG, Cat
        (Ch 58 58) h16, Ch 32 32], [Cat (Ch 46 46) (Cat dec_octet (Cat (Ch 46 46) (Cat dec_octet
        (Cat (Ch 46 46) dec_octet)))), Ch 32 32], [DIGIT, Cat (Ch 46 46) (Cat dec_octet (Cat (Ch
        46 46) (Cat dec_octet (Cat (Ch 46 46) dec_octet)))), Ch 32 32], [Rep 2 2 DIGIT, Cat (Ch 46
        46) (Cat dec_octet (Cat (Ch 46 46) (Cat dec_octet (Cat (Ch 46 46) dec_octet)))), Ch 32
        32], [Rep 0 3 HEXDIG, dcolon, Ch 32 32]], [[Rep 0 3 HEXDIG, Cat (Ch 58 58) h16,
        ha_to_port], [Cat (Ch 46 46) (Cat dec_octet (Cat (Ch 46 46) (Cat dec_octet (Cat (Ch 46 46)
        dec_octet)))), ha_to_port], [DIGIT, Cat (Ch 46 46) (Cat dec_octet (Cat (Ch 46 46) (Cat
        dec_octet (Cat (Ch 46 46) dec_octet)))), ha_to_port], [Rep 2 2 DIGIT, Cat (Ch 46 46) (Cat
        dec_octet (Cat (Ch 46 46) (Cat dec_octet (Cat (Ch 46 46) dec_octet)))), ha_to_port], [Rep
        0 3 HEXDIG, dcolon, ha_to_port]], [[Rep 0 3 HEXDIG, Cat (Ch 58 58) h16, ha_to_end], [Cat
        (Ch 46 46) (Cat dec_octet (Cat (Ch 46 46) (Cat dec_octet (Cat (Ch 46 46) dec_octet)))),
        ha_to_end], [DIGIT, Cat (Ch 46 46) (Cat dec_octet (Cat (Ch 46 46) (Cat dec_octet (Cat (Ch
        46 46) dec_octet)))), ha_to_end], [Rep 2 2 DIGIT, Cat (Ch 46 46) (Cat dec_octet (Cat (Ch
        46 46) (Cat dec_octet (Cat (Ch 46 46) dec_octet)))), ha_to_end], [Rep 0 3 HEXDIG, dcolon,
        ha_to_end]], [], [[Rep 0 3 HEXDIG, Cat (Ch 58 58) h16, ha_address2], [Cat (Ch 46 46) (Cat
        dec_octet (Cat (Ch 46 46) (Cat dec_octet (Cat (Ch 46 46) dec_octet)))), ha_address2],
        [DIGIT, Cat (Ch 46 46) (Cat dec_octet (Cat (Ch 46 46) (Cat dec_octet (Cat (Ch 46 46)
        dec_octet)))), ha_address2], [Rep 2 2 DIGIT, Cat (Ch 46 46) (Cat dec_octet (Cat (Ch 46 46)
        (Cat dec_octet (Cat (Ch 46 46) dec_octet)))), ha_address2], [Rep 0 3 HEXDIG, dcolon,
        ha_address2]]]])
      else
      if s = 274 then ([-128, 46, 47, 48, 58, 59, 65, 71, 97, 103], [[[], [[Rep 0 2 HEXDIG, Cat
        (Ch 58 58) h16, Ch 32 32], [Cat (Ch 46 46) (Cat dec_octet (Cat (Ch 46 46) (Cat dec_octet
        (Cat (Ch 46 46) dec_octet)))), Ch 32 32], [DIGIT, Cat (Ch 46 46) (Cat dec_octet (Cat (Ch
        46 46) (Cat dec_octet (Cat (Ch 46 46) dec_octet)))), Ch 32 32], [Rep 0 2 HEXDIG, dcolon,
        Ch 32 32]], [[Rep 0 2 HEXDIG, Cat (Ch 58 58) h16, ha_to_port], [Cat (Ch 46 46) (Cat
        dec_octet (Cat (Ch 46 46) (Cat dec_octet (Cat (Ch 46 46) dec_octet)))), ha_to_port],
        [DIGIT, Cat (Ch 46 46) (Cat dec_octet (Cat (Ch 46 46) (Cat dec_octet (Cat (Ch 46 46)
        dec_octet)))), ha_to_port], [Rep 0 2 HEXDIG, dcolon, ha_to_port]], [[Rep 0 2 HEXDIG, Cat
        (Ch 58 58) h16, ha_to_end], [Cat (Ch 46 46) (Cat dec_octet (Cat (Ch 46 46) (Cat dec_octet
        (Cat (Ch 46 46) dec_octet)))), ha_to_end], [DIGIT, Cat (Ch 46 46) (Cat dec_octet (Cat (Ch
        46 46) (Cat dec_octet (Cat (Ch 46 46) dec_octet)))), ha_to_end], [Rep 0 2 HEXDIG, dcolon,
        ha_to_end]], [], [[Rep 0 2 HEXDIG, Cat (Ch 58 58) h16, ha_address2], [Cat (Ch 46 46) (Cat
        dec_octet (Cat (Ch 46 46) (Cat dec_octet (Cat (Ch 46 46) dec_octet)))), ha_address2],
        [DIGIT, Cat (Ch 46 46) (Cat dec_octet (Cat (Ch 46 46) (Cat dec_octet (Cat (Ch 46 46)
        dec_octet)))), ha_address2], [Rep 0 2 HEXDIG, dcolon, ha_address2]]]])
      else
      if s = 275 then ([-128, 46, 47, 48, 58, 59, 65, 71, 97, 103], [[[], [[Rep 0 1 HEXDIG, Cat
        (Ch 58 58) h16, Ch 32 32], [Cat (Ch 46 46) (Cat dec_octet (Cat (Ch 46 46) (Cat dec_octet
        (Cat (Ch 46 46) dec_octet)))), Ch 32 32], [Rep 0 1 HEXDIG, dcolon, Ch 32 32]], [[Rep 0 1
        HEXDIG, Cat (Ch 58 58) h16, ha_to_port], [Cat (Ch 46 46) (Cat dec_octet (Cat (Ch 46 46)
        (Cat dec_octet (Cat (Ch 46 46) dec_octet)))), ha_to_port], [Rep 0 1 HEXDIG, dcolon,
        ha_to_port]], [[Rep 0 1 HEXDIG, Cat (Ch 58 58) h16, ha_to_end], [Cat (Ch 46 46) (Cat
        dec_octet (Cat (Ch 46 46) (Cat dec_octet (Cat (Ch 46 46) dec_octet)))), ha_to_end], [Rep 0
        1 HEXDIG, dcolon, ha_to_end]], [], [[Rep 0 1 HEXDIG, Cat (Ch 58 58) h16, ha_address2],
        [Cat (Ch 46 46) (Cat dec_octet (Cat (Ch 46 46) (Cat dec_octet (Cat (Ch 46 46)
        dec_octet)))), ha_address2], [Rep 0 1 HEXDIG, dcolon, ha_address2]]]])
      else
      if s = 276 then ([-128, 46, 47, 48, 53, 54, 58, 59, 65, 71, 97, 103], [[[], [[Rep 0 3
        HEXDIG, Cat (Ch 58 58) h16, Ch 32 32], [Cat (Ch 46 46) (Cat dec_octet (Cat (Ch 46 46) (Cat
        dec_octet (Cat (Ch 46 46) dec_octet)))), Ch 32 32], [DIGIT, Cat (Ch 46 46) (Cat dec_octet
        (Cat (Ch 46 46) (Cat dec_octet (Cat (Ch 46 46) dec_octet)))), Ch 32 32], [Cat (Ch 48 52)
        DIGIT, Cat (Ch 46 46) (Cat dec_octet (Cat (Ch 46 46) (Cat dec_octet (Cat (Ch 46 46)
        dec_octet)))), Ch 32 32], [Cat (Ch 53 53) (Ch 48 53), Cat (Ch 46 46) (Cat dec_octet (Cat
        (Ch 46 46) (Cat dec_octet (Cat (Ch 46 46) dec_octet)))), Ch 32 32], [Rep 0 3 HEXDIG,
        dcolon, Ch 32 32]], [[Rep 0 3 HEXDIG, Cat (Ch 58 58) h16, ha_to_port], [Cat (Ch 46 46)
        (Cat dec_octet (Cat (Ch 46 46) (Cat dec_octet (Cat (Ch 46 46) dec_octet)))), ha_to_port],
        [DIGIT, Cat (Ch 46 46) (Cat dec_octet (Cat (Ch 46 46) (Cat dec_octet (Cat (Ch 46 46)
        dec_octet)))), ha_to_port], [Cat (Ch 48 52) DIGIT, Cat (Ch 46 46) (Cat dec_octet (Cat (Ch
        46 46) (Cat dec_octet (Cat (Ch 46 46) dec_octet)))), ha_to_port], [Cat (Ch 53 53) (Ch 48
        53), Cat (Ch 46 46) (Cat dec_octet (Cat (Ch 46 46) (Cat dec_octet (Cat (Ch 46 46)
        dec_octet)))), ha_to_port], [Rep 0 3 HEXDIG, dcolon, ha_to_port]], [[Rep 0 3 HEXDIG, Cat
        (Ch 58 58) h16, ha_to_end], [Cat (Ch 46 46) (Cat dec_octet (Cat (Ch 46 46) (Cat dec_octet
        (Cat (Ch 46 46) dec_octet)))), ha_to_end], [DIGIT, Cat (Ch 46 46) (Cat dec_octet (Cat (Ch
        46 46) (Cat dec_octet (Cat (Ch 46 46) dec_octet)))), ha_to_end], [Cat (Ch 48 52) DIGIT,
        Cat (Ch 46 46) (Cat dec_octet (Cat (Ch 46 46) (Cat dec_octet (Cat (Ch 46 46)
        dec_octet)))), ha_to_end], [Cat (Ch 53 53) (Ch 48 53), Cat (Ch 46 46) (Cat dec_octet (Cat
        (Ch 46 46) (Cat dec_octet (Cat (Ch 46 46) dec_octet)))), ha_to_end], [Rep 0 3 HEXDIG,
        dcolon, ha_to_end]], [], [[Rep 0 3 HEXDIG, Cat (Ch 58 58) h16, ha_address2], [Cat (Ch 46
        46) (Cat dec_octet (Cat (Ch 46 46) (Cat dec_octet (Cat (Ch 46 46) dec_octet)))),
        ha_address2], [DIGIT, Cat (Ch 46 46) (Cat dec_octet (Cat (Ch 46 46) (Cat dec_octet (Cat
        (Ch 46 46) dec_octet)))), ha_address2], [Cat (Ch 48 52) DIGIT, Cat (Ch 46 46) (Cat
        dec_octet (Cat (Ch 46 46) (Cat dec_octet (Cat (Ch 46 46) dec_octet)))), ha_address2], [Cat
        (Ch 53 53) (Ch 48 53), Cat (Ch 46 46) (Cat dec_octet (Cat (Ch 46 46) (Cat dec_octet (Cat
        (Ch 46 46) dec_octet)))), ha_address2], [Rep 0 3 HEXDIG, dcolon, ha_address2]]]])
      else
      if s = 277 then ([-128, 46, 47, 48, 54, 58, 59, 65, 71, 97, 103], [[[], [[Rep 0 2 HEXDIG,
        Cat (Ch 58 58) h16, Ch 32 32], [Cat (Ch 46 46) (Cat dec_octet (Cat (Ch 46 46) (Cat
        dec_octet (Cat (Ch 46 46) dec_octet)))), Ch 32 32], [Ch 48 53, Cat (Ch 46 46) (Cat
        dec_octet (Cat (Ch 46 46) (Cat dec_octet (Cat (Ch 46 46) dec_octet)))), Ch 32 32], [Rep 0
        2 HEXDIG, dcolon, Ch 32 32]], [[Rep 0 2 HEXDIG, Cat (Ch 58 58) h16, ha_to_port], [Cat (Ch
        46 46) (Cat dec_octet (Cat (Ch 46 46) (Cat dec_octet (Cat (Ch 46 46) dec_octet)))),
        ha_to_port], [Ch 48 53, Cat (Ch 46 46) (Cat dec_octet (Cat (Ch 46 46) (Cat dec_octet (Cat
        (Ch 46 46) dec_octet)))), ha_to_port], [Rep 0 2 HEXDIG, dcolon, ha_to_port]], [[Rep 0 2
        HEXDIG, Cat (Ch 58 58) h16, ha_to_end], [Cat (Ch 46 46) (Cat dec_octet (Cat (Ch 46 46)
        (Cat dec_octet (Cat (Ch 46 46) dec_octet)))), ha_to_end], [Ch 48 53, Cat (Ch 46 46) (Cat
        dec_octet (Cat (Ch 46 46) (Cat dec_octet (Cat (Ch 46 46) dec_octet)))), ha_to_end], [Rep 0
        2 HEXDIG, dcolon, ha_to_end]], [], [[Rep 0 2 HEXDIG, Cat (Ch 58 58) h16, ha_address2],
        [Cat (Ch 46 46) (Cat dec_octet (Cat (Ch 46 46) (Cat dec_octet (Cat (Ch 46 46)
        dec_octet)))), ha_address2], [Ch 48 53, Cat (Ch 46 46) (Cat dec_octet (Cat (Ch 46 46) (Cat
        dec_octet (Cat (Ch 46 46) dec_octet)))), ha_address2], [Rep 0 2 HEXDIG, dcolon,
        ha_address2]]]])
      else
      if s = 278 then ([-128, 46, 47, 48, 58, 59, 65, 71, 97, 103], [[[], [[Rep 0 2 HEXDIG, Cat
        (Ch 58 58) h16, Ch 32 32], [Cat (Ch 46 46) (Cat dec_octet (Cat (Ch 46 46) (Cat dec_octet
        (Cat (Ch 46 46) dec_octet)))), Ch 32 32], [Rep 0 2 HEXDIG, dcolon, Ch 32 32]], [[Rep 0 2
        HEXDIG, Cat (Ch 58 58) h16, ha_to_port], [Cat (Ch 46 46) (Cat dec_octet (Cat (Ch 46 46)
        (Cat dec_octet (Cat (Ch 46 46) dec_octet)))), ha_to_port], [Rep 0 2 HEXDIG, dcolon,
        ha_to_port]], [[Rep 0 2 HEXDIG, Cat (Ch 58 58) h16, ha_to_end], [Cat (Ch 46 46) (Cat
        dec_octet (Cat (Ch 46 46) (Cat dec_octet (Cat (Ch 46 46) dec_octet)))), ha_to_end], [Rep 0
        2 HEXDIG, dcolon, ha_to_end]], [], [[Rep 0 2 HEXDIG, Cat (Ch 58 58) h16, ha_address2],
        [Cat (Ch 46 46) (Cat dec_octet (Cat (Ch 46 46) (Cat dec_octet (Cat (Ch 46 46)
        dec_octet)))), ha_address2], [Rep 0 2 HEXDIG, dcolon, ha_address2]]]])
      else
      if s = 279 then ([-128, 46, 47, 48, 58, 59, 65, 71, 97, 103], [[[], [[Rep 0 3 HEXDIG, Cat
        (Ch 58 58) h16, Ch 32 32], [Cat (Ch 46 46) (Cat dec_octet (Cat (Ch 46 46) (Cat dec_octet
        (Cat (Ch 46 46) dec_octet)))), Ch 32 32], [DIGIT, Cat (Ch 46 46) (Cat dec_octet (Cat (Ch
        46 46) (Cat dec_octet (Cat (Ch 46 46) dec_octet)))), Ch 32 32], [Rep 0 3 HEXDIG, dcolon,
        Ch 32 32]], [[Rep 0 3 HEXDIG, Cat (Ch 58 58) h16, ha_to_port], [Cat (Ch 46 46) (Cat
        dec_octet (Cat (Ch 46 46) (Cat dec_octet (Cat (Ch 46 46) dec_octet)))), ha_to_port],
        [DIGIT, Cat (Ch 46 46) (Cat dec_octet (Cat (Ch 46 46) (Cat dec_octet (Cat (Ch 46 46)
        dec_octet)))), ha_to_port], [Rep 0 3 HEXDIG, dcolon, ha_to_port]], [[Rep 0 3 HEXDIG, Cat
        (Ch 58 58) h16, ha_to_end], [Cat (Ch 46 46) (Cat dec_octet (Cat (Ch 46 46) (Cat dec_octet
        (Cat (Ch 46 46) dec_octet)))), ha_to_end], [DIGIT, Cat (Ch 46 46) (Cat dec_octet (Cat (Ch
        46 46) (Cat dec_octet (Cat (Ch 46 46) dec_octet)))), ha_to_end], [Rep 0 3 HEXDIG, dcolon,
        ha_to_end]], [], [[Rep 0 3 HEXDIG, Cat (Ch 58 58) h16, ha_address2], [Cat (Ch 46 46) (Cat
        dec_octet (Cat (Ch 46 46) (Cat dec_octet (Cat (Ch 46 46) dec_octet)))), ha_address2],
        [DIGIT, Cat (Ch 46 46) (Cat dec_octet (Cat (Ch 46 46) (Cat dec_octet (Cat (Ch 46 46)
        dec_octet)))), ha_address2], [Rep 0 3 HEXDIG, dcolon, ha_address2]]]])
      else
      ([-128, 32, 33, 48, 58, 65, 71, 97, 103], [[[], [[h16, Ch 32 32], [Ch 32 32]], [[h16,
        ha_to_port], [ha_to_port]], [[h16, ha_to_end], [ha_to_end]], [], [[h16, ha_address2],
        [ha_address2]]]]))"

definition ha_expects_36 :: certificate where
  "ha_expects_36 s =
     (if s = 281 then ([-128, 48, 58, 59, 65, 71, 97, 103], [[[], [[Rep 0 3 HEXDIG, Cat (Ch 58 58)
        h16, Ch 32 32], [Rep 0 3 HEXDIG, dcolon, Ch 32 32]], [[Rep 0 3 HEXDIG, Cat (Ch 58 58) h16,
        ha_to_port], [Rep 0 3 HEXDIG, dcolon, ha_to_port]], [[Rep 0 3 HEXDIG, Cat (Ch 58 58) h16,
        ha_to_end], [Rep 0 3 HEXDIG, dcolon, ha_to_end]], [], [[Rep 0 3 HEXDIG, Cat (Ch 58 58)
        h16, ha_address2], [Rep 0 3 HEXDIG, dcolon, ha_address2]]]])
      else
      if s = 282 then ([-128, 32, 33, 48, 49, 50, 51, 58, 65, 71, 97, 103], [[[], [[ls32, Ch 32
        32], [h16, Ch 32 32], [Ch 32 32]], [[ls32, ha_to_port], [h16, ha_to_port], [ha_to_port]],
        [[ls32, ha_to_end], [h16, ha_to_end], [ha_to_end]], [], [[ls32, ha_address2], [h16,
        ha_address2], [ha_address2]]]])
      else
      if s = 283 then ([-128, 32, 33, 46, 47, 48, 58, 59, 65, 71, 97, 103], [[[], [[Rep 0 3
        HEXDIG, Cat (Ch 58 58) h16, Ch 32 32], [Cat (Ch 46 46) (Cat dec_octet (Cat (Ch 46 46) (Cat
        dec_octet (Cat (Ch 46 46) dec_octet)))), Ch 32 32], [Rep 0 3 HEXDIG, Ch 32 32]], [[Rep 0 3
        HEXDIG, Cat (Ch 58 58) h16, ha_to_port], [Cat (Ch 46 46) (Cat dec_octet (Cat (Ch 46 46)
        (Cat dec_octet (Cat (Ch 46 46) dec_octet)))), ha_to_port], [Rep 0 3 HEXDIG, ha_to_port]],
        [[Rep 0 3 HEXDIG, Cat (Ch 58 58) h16, ha_to_end], [Cat (Ch 46 46) (Cat dec_octet (Cat (Ch
        46 46) (Cat dec_octet (Cat (Ch 46 46) dec_octet)))), ha_to_end], [Rep 0 3 HEXDIG,
        ha_to_end]], [], [[Rep 0 3 HEXDIG, Cat (Ch 58 58) h16, ha_address2], [Cat (Ch 46 46) (Cat
        dec_octet (Cat (Ch 46 46) (Cat dec_octet (Cat (Ch 46 46) dec_octet)))), ha_address2], [Rep
        0 3 HEXDIG, ha_address2]]]])
      else
      if s = 284 then ([-128, 32, 33, 48, 58, 59, 65, 71, 97, 103], [[[], [[Rep 0 2 HEXDIG, Cat
        (Ch 58 58) h16, Ch 32 32], [Rep 0 2 HEXDIG, Ch 32 32]], [[Rep 0 2 HEXDIG, Cat (Ch 58 58)
        h16, ha_to_port], [Rep 0 2 HEXDIG, ha_to_port]], [[Rep 0 2 HEXDIG, Cat (Ch 58 58) h16,
        ha_to_end], [Rep 0 2 HEXDIG, ha_to_end]], [], [[Rep 0 2 HEXDIG, Cat (Ch 58 58) h16,
        ha_address2], [Rep 0 2 HEXDIG, ha_address2]]]])
      else
      if s = 285 then ([-128, 32, 33, 48, 58, 59, 65, 71, 97, 103], [[[], [[Rep 0 1 HEXDIG, Cat
        (Ch 58 58) h16, Ch 32 32], [Rep 0 1 HEXDIG, Ch 32 32]], [[Rep 0 1 HEXDIG, Cat (Ch 58 58)
        h16, ha_to_port], [Rep 0 1 HEXDIG, ha_to_port]], [[Rep 0 1 HEXDIG, Cat (Ch 58 58) h16,
        ha_to_end], [Rep 0 1 HEXDIG, ha_to_end]], [], [[Rep 0 1 HEXDIG, Cat (Ch 58 58) h16,
        ha_address2], [Rep 0 1 HEXDIG, ha_address2]]]])
      else
      if s = 286 then ([-128, 32, 33, 58, 59], [[[], [[Cat (Ch 58 58) h16, Ch 32 32], [Ch 32 32]],
        [[Cat (Ch 58 58) h16, ha_to_port], [ha_to_port]], [[Cat (Ch 58 58) h16, ha_to_end],
        [ha_to_end]], [], [[Cat (Ch 58 58) h16, ha_address2], [ha_address2]]]])
      else
      if s = 287 then ([-128, 48, 58, 65, 71, 97, 103], [[[], [[h16, Ch 32 32]], [[h16,
        ha_to_port]], [[h16, ha_to_end]], [], [[h16, ha_address2]]]])
      else
      ([-128, 32, 33, 46, 47, 48, 58, 59, 65, 71, 97, 103], [[[], [[Rep 0 3 HEXDIG, Cat (Ch 58 58)
        h16, Ch 32 32], [Cat (Ch 46 46) (Cat dec_octet (Cat (Ch 46 46) (Cat dec_octet (Cat (Ch 46
        46) dec_octet)))), Ch 32 32], [DIGIT, Cat (Ch 46 46) (Cat dec_octet (Cat (Ch 46 46) (Cat
        dec_octet (Cat (Ch 46 46) dec_octet)))), Ch 32 32], [Rep 2 2 DIGIT, Cat (Ch 46 46) (Cat
        dec_octet (Cat (Ch 46 46) (Cat dec_octet (Cat (Ch 46 46) dec_octet)))), Ch 32 32], [Rep 0
        3 HEXDIG, Ch 32 32]], [[Rep 0 3 HEXDIG, Cat (Ch 58 58) h16, ha_to_port], [Cat (Ch 46 46)
        (Cat dec_octet (Cat (Ch 46 46) (Cat dec_octet (Cat (Ch 46 46) dec_octet)))), ha_to_port],
        [DIGIT, Cat (Ch 46 46) (Cat dec_octet (Cat (Ch 46 46) (Cat dec_octet (Cat (Ch 46 46)
        dec_octet)))), ha_to_port], [Rep 2 2 DIGIT, Cat (Ch 46 46) (Cat dec_octet (Cat (Ch 46 46)
        (Cat dec_octet (Cat (Ch 46 46) dec_octet)))), ha_to_port], [Rep 0 3 HEXDIG, ha_to_port]],
        [[Rep 0 3 HEXDIG, Cat (Ch 58 58) h16, ha_to_end], [Cat (Ch 46 46) (Cat dec_octet (Cat (Ch
        46 46) (Cat dec_octet (Cat (Ch 46 46) dec_octet)))), ha_to_end], [DIGIT, Cat (Ch 46 46)
        (Cat dec_octet (Cat (Ch 46 46) (Cat dec_octet (Cat (Ch 46 46) dec_octet)))), ha_to_end],
        [Rep 2 2 DIGIT, Cat (Ch 46 46) (Cat dec_octet (Cat (Ch 46 46) (Cat dec_octet (Cat (Ch 46
        46) dec_octet)))), ha_to_end], [Rep 0 3 HEXDIG, ha_to_end]], [], [[Rep 0 3 HEXDIG, Cat (Ch
        58 58) h16, ha_address2], [Cat (Ch 46 46) (Cat dec_octet (Cat (Ch 46 46) (Cat dec_octet
        (Cat (Ch 46 46) dec_octet)))), ha_address2], [DIGIT, Cat (Ch 46 46) (Cat dec_octet (Cat
        (Ch 46 46) (Cat dec_octet (Cat (Ch 46 46) dec_octet)))), ha_address2], [Rep 2 2 DIGIT, Cat
        (Ch 46 46) (Cat dec_octet (Cat (Ch 46 46) (Cat dec_octet (Cat (Ch 46 46) dec_octet)))),
        ha_address2], [Rep 0 3 HEXDIG, ha_address2]]]]))"

definition ha_expects_37 :: certificate where
  "ha_expects_37 s =
     (if s = 289 then ([-128, 32, 33, 46, 47, 48, 58, 59, 65, 71, 97, 103], [[[], [[Rep 0 2
        HEXDIG, Cat (Ch 58 58) h16, Ch 32 32], [Cat (Ch 46 46) (Cat dec_octet (Cat (Ch 46 46) (Cat
        dec_octet (Cat (Ch 46 46) dec_octet)))), Ch 32 32], [DIGIT, Cat (Ch 46 46) (Cat dec_octet
        (Cat (Ch 46 46) (Cat dec_octet (Cat (Ch 46 46) dec_octet)))), Ch 32 32], [Rep 0 2 HEXDIG,
        Ch 32 32]], [[Rep 0 2 HEXDIG, Cat (Ch 58 58) h16, ha_to_port], [Cat (Ch 46 46) (Cat
        dec_octet (Cat (Ch 46 46) (Cat dec_octet (Cat (Ch 46 46) dec_octet)))), ha_to_port],
        [DIGIT, Cat (Ch 46 46) (Cat dec_octet (Cat (Ch 46 46) (Cat dec_octet (Cat (Ch 46 46)
        dec_octet)))), ha_to_port], [Rep 0 2 HEXDIG, ha_to_port]], [[Rep 0 2 HEXDIG, Cat (Ch 58
        58) h16, ha_to_end], [Cat (Ch 46 46) (Cat dec_octet (Cat (Ch 46 46) (Cat dec_octet (Cat
        (Ch 46 46) dec_octet)))), ha_to_end], [DIGIT, Cat (Ch 46 46) (Cat dec_octet (Cat (Ch 46
        46) (Cat dec_octet (Cat (Ch 46 46) dec_octet)))), ha_to_end], [Rep 0 2 HEXDIG,
        ha_to_end]], [], [[Rep 0 2 HEXDIG, Cat (Ch 58 58) h16, ha_address2], [Cat (Ch 46 46) (Cat
        dec_octet (Cat (Ch 46 46) (Cat dec_octet (Cat (Ch 46 46) dec_octet)))), ha_address2],
        [DIGIT, Cat (Ch 46 46) (Cat dec_octet (Cat (Ch 46 46) (Cat dec_octet (Cat (Ch 46 46)
        dec_octet)))), ha_address2], [Rep 0 2 HEXDIG, ha_address2]]]])
      else
      if s = 290 then ([-128, 32, 33, 46, 47, 48, 58, 59, 65, 71, 97, 103], [[[], [[Rep 0 1
        HEXDIG, Cat (Ch 58 58) h16, Ch 32 32], [Cat (Ch 46 46) (Cat dec_octet (Cat (Ch 46 46) (Cat
        dec_octet (Cat (Ch 46 46) dec_octet)))), Ch 32 32], [Rep 0 1 HEXDIG, Ch 32 32]], [[Rep 0 1
        HEXDIG, Cat (Ch 58 58) h16, ha_to_port], [Cat (Ch 46 46) (Cat dec_octet (Cat (Ch 46 46)
        (Cat dec_octet (Cat (Ch 46 46) dec_octet)))), ha_to_port], [Rep 0 1 HEXDIG, ha_to_port]],
        [[Rep 0 1 HEXDIG, Cat (Ch 58 58) h16, ha_to_end], [Cat (Ch 46 46) (Cat dec_octet (Cat (Ch
        46 46) (Cat dec_octet (Cat (Ch 46 46) dec_octet)))), ha_to_end], [Rep 0 1 HEXDIG,
        ha_to_end]], [], [[Rep 0 1 HEXDIG, Cat (Ch 58 58) h16, ha_address2], [Cat (Ch 46 46) (Cat
        dec_octet (Cat (Ch 46 46) (Cat dec_octet (Cat (Ch 46 46) dec_octet)))), ha_address2], [Rep
        0 1 HEXDIG, ha_address2]]]])
      else
      if s = 291 then ([-128, 32, 33, 46, 47, 48, 53, 54, 58, 59, 65, 71, 97, 103], [[[], [[Rep 0
        3 HEXDIG, Cat (Ch 58 58) h16, Ch 32 32], [Cat (Ch 46 46) (Cat dec_octet (Cat (Ch 46 46)
        (Cat dec_octet (Cat (Ch 46 46) dec_octet)))), Ch 32 32], [DIGIT, Cat (Ch 46 46) (Cat
        dec_octet (Cat (Ch 46 46) (Cat dec_octet (Cat (Ch 46 46) dec_octet)))), Ch 32 32], [Cat
        (Ch 48 52) DIGIT, Cat (Ch 46 46) (Cat dec_octet (Cat (Ch 46 46) (Cat dec_octet (Cat (Ch 46
        46) dec_octet)))), Ch 32 32], [Cat (Ch 53 53) (Ch 48 53), Cat (Ch 46 46) (Cat dec_octet
        (Cat (Ch 46 46) (Cat dec_octet (Cat (Ch 46 46) dec_octet)))), Ch 32 32], [Rep 0 3 HEXDIG,
        Ch 32 32]], [[Rep 0 3 HEXDIG, Cat (Ch 58 58) h16, ha_to_port], [Cat (Ch 46 46) (Cat
        dec_octet (Cat (Ch 46 46) (Cat dec_octet (Cat (Ch 46 46) dec_octet)))), ha_to_port],
        [DIGIT, Cat (Ch 46 46) (Cat dec_octet (Cat (Ch 46 46) (Cat dec_octet (Cat (Ch 46 46)
        dec_octet)))), ha_to_port], [Cat (Ch 48 52) DIGIT, Cat (Ch 46 46) (Cat dec_octet (Cat (Ch
        46 46) (Cat dec_octet (Cat (Ch 46 46) dec_octet)))), ha_to_port], [Cat (Ch 53 53) (Ch 48
        53), Cat (Ch 46 46) (Cat dec_octet (Cat (Ch 46 46) (Cat dec_octet (Cat (Ch 46 46)
        dec_octet)))), ha_to_port], [Rep 0 3 HEXDIG, ha_to_port]], [[Rep 0 3 HEXDIG, Cat (Ch 58
        58) h16, ha_to_end], [Cat (Ch 46 46) (Cat dec_octet (Cat (Ch 46 46) (Cat dec_octet (Cat
        (Ch 46 46) dec_octet)))), ha_to_end], [DIGIT, Cat (Ch 46 46) (Cat dec_octet (Cat (Ch 46
        46) (Cat dec_octet (Cat (Ch 46 46) dec_octet)))), ha_to_end], [Cat (Ch 48 52) DIGIT, Cat
        (Ch 46 46) (Cat dec_octet (Cat (Ch 46 46) (Cat dec_octet (Cat (Ch 46 46) dec_octet)))),
        ha_to_end], [Cat (Ch 53 53) (Ch 48 53), Cat (Ch 46 46) (Cat dec_octet (Cat (Ch 46 46) (Cat
        dec_octet (Cat (Ch 46 46) dec_octet)))), ha_to_end], [Rep 0 3 HEXDIG, ha_to_end]], [],
        [[Rep 0 3 HEXDIG, Cat (Ch 58 58) h16, ha_address2], [Cat (Ch 46 46) (Cat dec_octet (Cat
        (Ch 46 46) (Cat dec_octet (Cat (Ch 46 46) dec_octet)))), ha_address2], [DIGIT, Cat (Ch 46
        46) (Cat dec_octet (Cat (Ch 46 46) (Cat dec_octet (Cat (Ch 46 46) dec_octet)))),
        ha_address2], [Cat (Ch 48 52) DIGIT, Cat (Ch 46 46) (Cat dec_octet (Cat (Ch 46 46) (Cat
        dec_octet (Cat (Ch 46 46) dec_octet)))), ha_address2], [Cat (Ch 53 53) (Ch 48 53), Cat (Ch
        46 46) (Cat dec_octet (Cat (Ch 46 46) (Cat dec_octet (Cat (Ch 46 46) dec_octet)))),
        ha_address2], [Rep 0 3 HEXDIG, ha_address2]]]])
      else
      if s = 292 then ([-128, 32, 33, 46, 47, 48, 54, 58, 59, 65, 71, 97, 103], [[[], [[Rep 0 2
        HEXDIG, Cat (Ch 58 58) h16, Ch 32 32], [Cat (Ch 46 46) (Cat dec_octet (Cat (Ch 46 46) (Cat
        dec_octet (Cat (Ch 46 46) dec_octet)))), Ch 32 32], [Ch 48 53, Cat (Ch 46 46) (Cat
        dec_octet (Cat (Ch 46 46) (Cat dec_octet (Cat (Ch 46 46) dec_octet)))), Ch 32 32], [Rep 0
        2 HEXDIG, Ch 32 32]], [[Rep 0 2 HEXDIG, Cat (Ch 58 58) h16, ha_to_port], [Cat (Ch 46 46)
        (Cat dec_octet (Cat (Ch 46 46) (Cat dec_octet (Cat (Ch 46 46) dec_octet)))), ha_to_port],
        [Ch 48 53, Cat (Ch 46 46) (Cat dec_octet (Cat (Ch 46 46) (Cat dec_octet (Cat (Ch 46 46)
        dec_octet)))), ha_to_port], [Rep 0 2 HEXDIG, ha_to_port]], [[Rep 0 2 HEXDIG, Cat (Ch 58
        58) h16, ha_to_end], [Cat (Ch 46 46) (Cat dec_octet (Cat (Ch 46 46) (Cat dec_octet (Cat
        (Ch 46 46) dec_octet)))), ha_to_end], [Ch 48 53, Cat (Ch 46 46) (Cat dec_octet (Cat (Ch 46
        46) (Cat dec_octet (Cat (Ch 46 46) dec_octet)))), ha_to_end], [Rep 0 2 HEXDIG,
        ha_to_end]], [], [[Rep 0 2 HEXDIG, Cat (Ch 58 58) h16, ha_address2], [Cat (Ch 46 46) (Cat
        dec_octet (Cat (Ch 46 46) (Cat dec_octet (Cat (Ch 46 46) dec_octet)))), ha_address2], [Ch
        48 53, Cat (Ch 46 46) (Cat dec_octet (Cat (Ch 46 46) (Cat dec_octet (Cat (Ch 46 46)
        dec_octet)))), ha_address2], [Rep 0 2 HEXDIG, ha_address2]]]])
      else
      if s = 293 then ([-128, 32, 33, 46, 47, 48, 58, 59, 65, 71, 97, 103], [[[], [[Rep 0 2
        HEXDIG, Cat (Ch 58 58) h16, Ch 32 32], [Cat (Ch 46 46) (Cat dec_octet (Cat (Ch 46 46) (Cat
        dec_octet (Cat (Ch 46 46) dec_octet)))), Ch 32 32], [Rep 0 2 HEXDIG, Ch 32 32]], [[Rep 0 2
        HEXDIG, Cat (Ch 58 58) h16, ha_to_port], [Cat (Ch 46 46) (Cat dec_octet (Cat (Ch 46 46)
        (Cat dec_octet (Cat (Ch 46 46) dec_octet)))), ha_to_port], [Rep 0 2 HEXDIG, ha_to_port]],
        [[Rep 0 2 HEXDIG, Cat (Ch 58 58) h16, ha_to_end], [Cat (Ch 46 46) (Cat dec_octet (Cat (Ch
        46 46) (Cat dec_octet (Cat (Ch 46 46) dec_octet)))), ha_to_end], [Rep 0 2 HEXDIG,
        ha_to_end]], [], [[Rep 0 2 HEXDIG, Cat (Ch 58 58) h16, ha_address2], [Cat (Ch 46 46) (Cat
        dec_octet (Cat (Ch 46 46) (Cat dec_octet (Cat (Ch 46 46) dec_octet)))), ha_address2], [Rep
        0 2 HEXDIG, ha_address2]]]])
      else
      if s = 294 then ([-128, 32, 33, 46, 47, 48, 58, 59, 65, 71, 97, 103], [[[], [[Rep 0 3
        HEXDIG, Cat (Ch 58 58) h16, Ch 32 32], [Cat (Ch 46 46) (Cat dec_octet (Cat (Ch 46 46) (Cat
        dec_octet (Cat (Ch 46 46) dec_octet)))), Ch 32 32], [DIGIT, Cat (Ch 46 46) (Cat dec_octet
        (Cat (Ch 46 46) (Cat dec_octet (Cat (Ch 46 46) dec_octet)))), Ch 32 32], [Rep 0 3 HEXDIG,
        Ch 32 32]], [[Rep 0 3 HEXDIG, Cat (Ch 58 58) h16, ha_to_port], [Cat (Ch 46 46) (Cat
        dec_octet (Cat (Ch 46 46) (Cat dec_octet (Cat (Ch 46 46) dec_octet)))), ha_to_port],
        [DIGIT, Cat (Ch 46 46) (Cat dec_octet (Cat (Ch 46 46) (Cat dec_octet (Cat (Ch 46 46)
        dec_octet)))), ha_to_port], [Rep 0 3 HEXDIG, ha_to_port]], [[Rep 0 3 HEXDIG, Cat (Ch 58
        58) h16, ha_to_end], [Cat (Ch 46 46) (Cat dec_octet (Cat (Ch 46 46) (Cat dec_octet (Cat
        (Ch 46 46) dec_octet)))), ha_to_end], [DIGIT, Cat (Ch 46 46) (Cat dec_octet (Cat (Ch 46
        46) (Cat dec_octet (Cat (Ch 46 46) dec_octet)))), ha_to_end], [Rep 0 3 HEXDIG,
        ha_to_end]], [], [[Rep 0 3 HEXDIG, Cat (Ch 58 58) h16, ha_address2], [Cat (Ch 46 46) (Cat
        dec_octet (Cat (Ch 46 46) (Cat dec_octet (Cat (Ch 46 46) dec_octet)))), ha_address2],
        [DIGIT, Cat (Ch 46 46) (Cat dec_octet (Cat (Ch 46 46) (Cat dec_octet (Cat (Ch 46 46)
        dec_octet)))), ha_address2], [Rep 0 3 HEXDIG, ha_address2]]]])
      else
      if s = 295 then ([-128, 32, 33, 48, 58, 59, 65, 71, 97, 103], [[[], [[Rep 0 3 HEXDIG, Cat
        (Ch 58 58) h16, Ch 32 32], [Rep 0 3 HEXDIG, Ch 32 32]], [[Rep 0 3 HEXDIG, Cat (Ch 58 58)
        h16, ha_to_port], [Rep 0 3 HEXDIG, ha_to_port]], [[Rep 0 3 HEXDIG, Cat (Ch 58 58) h16,
        ha_to_end], [Rep 0 3 HEXDIG, ha_to_end]], [], [[Rep 0 3 HEXDIG, Cat (Ch 58 58) h16,
        ha_address2], [Rep 0 3 HEXDIG, ha_address2]]]])
      else
      ([-128, 32, 33, 48, 49, 50, 51, 58, 65, 71, 97, 103], [[[], [[Cat h16_colon ls32, Ch 32 32],
        [ls32, Ch 32 32], [h16, Ch 32 32], [Ch 32 32]], [[Cat h16_colon ls32, ha_to_port], [ls32,
        ha_to_port], [h16, ha_to_port], [ha_to_port]], [[Cat h16_colon ls32, ha_to_end], [ls32,
        ha_to_end], [h16, ha_to_end], [ha_to_end]], [], [[Cat h16_colon ls32, ha_address2], [ls32,
        ha_address2], [h16, ha_address2], [ha_address2]]]]))"

definition ha_expects_38 :: certificate where
  "ha_expects_38 s =
     (if s = 297 then ([-128, 32, 33, 46, 47, 48, 58, 59, 65, 71, 97, 103], [[[], [[Rep 0 3
        HEXDIG, Ch 58 58, ls32, Ch 32 32], [Rep 0 3 HEXDIG, Cat (Ch 58 58) h16, Ch 32 32], [Cat
        (Ch 46 46) (Cat dec_octet (Cat (Ch 46 46) (Cat dec_octet (Cat (Ch 46 46) dec_octet)))), Ch
        32 32], [Rep 0 3 HEXDIG, Ch 32 32]], [[Rep 0 3 HEXDIG, Ch 58 58, ls32, ha_to_port], [Rep 0
        3 HEXDIG, Cat (Ch 58 58) h16, ha_to_port], [Cat (Ch 46 46) (Cat dec_octet (Cat (Ch 46 46)
        (Cat dec_octet (Cat (Ch 46 46) dec_octet)))), ha_to_port], [Rep 0 3 HEXDIG, ha_to_port]],
        [[Rep 0 3 HEXDIG, Ch 58 58, ls32, ha_to_end], [Rep 0 3 HEXDIG, Cat (Ch 58 58) h16,
        ha_to_end], [Cat (Ch 46 46) (Cat dec_octet (Cat (Ch 46 46) (Cat dec_octet (Cat (Ch 46 46)
        dec_octet)))), ha_to_end], [Rep 0 3 HEXDIG, ha_to_end]], [], [[Rep 0 3 HEXDIG, Ch 58 58,
        ls32, ha_address2], [Rep 0 3 HEXDIG, Cat (Ch 58 58) h16, ha_address2], [Cat (Ch 46 46)
        (Cat dec_octet (Cat (Ch 46 46) (Cat dec_octet (Cat (Ch 46 46) dec_octet)))), ha_address2],
        [Rep 0 3 HEXDIG, ha_address2]]]])
      else
      if s = 298 then ([-128, 32, 33, 48, 58, 59, 65, 71, 97, 103], [[[], [[Rep 0 2 HEXDIG, Ch 58
        58, ls32, Ch 32 32], [Rep 0 2 HEXDIG, Cat (Ch 58 58) h16, Ch 32 32], [Rep 0 2 HEXDIG, Ch
        32 32]], [[Rep 0 2 HEXDIG, Ch 58 58, ls32, ha_to_port], [Rep 0 2 HEXDIG, Cat (Ch 58 58)
        h16, ha_to_port], [Rep 0 2 HEXDIG, ha_to_port]], [[Rep 0 2 HEXDIG, Ch 58 58, ls32,
        ha_to_end], [Rep 0 2 HEXDIG, Cat (Ch 58 58) h16, ha_to_end], [Rep 0 2 HEXDIG, ha_to_end]],
        [], [[Rep 0 2 HEXDIG, Ch 58 58, ls32, ha_address2], [Rep 0 2 HEXDIG, Cat (Ch 58 58) h16,
        ha_address2], [Rep 0 2 HEXDIG, ha_address2]]]])
      else
      if s = 299 then ([-128, 32, 33, 48, 58, 59, 65, 71, 97, 103], [[[], [[Rep 0 1 HEXDIG, Ch 58
        58, ls32, Ch 32 32], [Rep 0 1 HEXDIG, Cat (Ch 58 58) h16, Ch 32 32], [Rep 0 1 HEXDIG, Ch
        32 32]], [[Rep 0 1 HEXDIG, Ch 58 58, ls32, ha_to_port], [Rep 0 1 HEXDIG, Cat (Ch 58 58)
        h16, ha_to_port], [Rep 0 1 HEXDIG, ha_to_port]], [[Rep 0 1 HEXDIG, Ch 58 58, ls32,
        ha_to_end], [Rep 0 1 HEXDIG, Cat (Ch 58 58) h16, ha_to_end], [Rep 0 1 HEXDIG, ha_to_end]],
        [], [[Rep 0 1 HEXDIG, Ch 58 58, ls32, ha_address2], [Rep 0 1 HEXDIG, Cat (Ch 58 58) h16,
        ha_address2], [Rep 0 1 HEXDIG, ha_address2]]]])
      else
      if s = 300 then ([-128, 32, 33, 58, 59], [[[], [[Ch 58 58, ls32, Ch 32 32], [Cat (Ch 58 58)
        h16, Ch 32 32], [Ch 32 32]], [[Ch 58 58, ls32, ha_to_port], [Cat (Ch 58 58) h16,
        ha_to_port], [ha_to_port]], [[Ch 58 58, ls32, ha_to_end], [Cat (Ch 58 58) h16, ha_to_end],
        [ha_to_end]], [], [[Ch 58 58, ls32, ha_address2], [Cat (Ch 58 58) h16, ha_address2],
        [ha_address2]]]])
      else
      if s = 301 then ([-128, 48, 49, 50, 51, 58, 65, 71, 97, 103], [[[], [[ls32, Ch 32 32], [h16,
        Ch 32 32]], [[ls32, ha_to_port], [h16, ha_to_port]], [[ls32, ha_to_end], [h16,
        ha_to_end]], [], [[ls32, ha_address2], [h16, ha_address2]]]])
      else
      if s = 302 then ([-128, 32, 33, 46, 47, 48, 58, 59, 65, 71, 97, 103], [[[], [[Rep 0 3
        HEXDIG, Ch 58 58, ls32, Ch 32 32], [Rep 0 3 HEXDIG, Cat (Ch 58 58) h16, Ch 32 32], [Cat
        (Ch 46 46) (Cat dec_octet (Cat (Ch 46 46) (Cat dec_octet (Cat (Ch 46 46) dec_octet)))), Ch
        32 32], [DIGIT, Cat (Ch 46 46) (Cat dec_octet (Cat (Ch 46 46) (Cat dec_octet (Cat (Ch 46
        46) dec_octet)))), Ch 32 32], [Rep 2 2 DIGIT, Cat (Ch 46 46) (Cat dec_octet (Cat (Ch 46
        46) (Cat dec_octet (Cat (Ch 46 46) dec_octet)))), Ch 32 32], [Rep 0 3 HEXDIG, Ch 32 32]],
        [[Rep 0 3 HEXDIG, Ch 58 58, ls32, ha_to_port], [Rep 0 3 HEXDIG, Cat (Ch 58 58) h16,
        ha_to_port], [Cat (Ch 46 46) (Cat dec_octet (Cat (Ch 46 46) (Cat dec_octet (Cat (Ch 46 46)
        dec_octet)))), ha_to_port], [DIGIT, Cat (Ch 46 46) (Cat dec_octet (Cat (Ch 46 46) (Cat
        dec_octet (Cat (Ch 46 46) dec_octet)))), ha_to_port], [Rep 2 2 DIGIT, Cat (Ch 46 46) (Cat
        dec_octet (Cat (Ch 46 46) (Cat dec_octet (Cat (Ch 46 46) dec_octet)))), ha_to_port], [Rep
        0 3 HEXDIG, ha_to_port]], [[Rep 0 3 HEXDIG, Ch 58 58, ls32, ha_to_end], [Rep 0 3 HEXDIG,
        Cat (Ch 58 58) h16, ha_to_end], [Cat (Ch 46 46) (Cat dec_octet (Cat (Ch 46 46) (Cat
        dec_octet (Cat (Ch 46 46) dec_octet)))), ha_to_end], [DIGIT, Cat (Ch 46 46) (Cat dec_octet
        (Cat (Ch 46 46) (Cat dec_octet (Cat (Ch 46 46) dec_octet)))), ha_to_end], [Rep 2 2 DIGIT,
        Cat (Ch 46 46) (Cat dec_octet (Cat (Ch 46 46) (Cat dec_octet (Cat (Ch 46 46)
        dec_octet)))), ha_to_end], [Rep 0 3 HEXDIG, ha_to_end]], [], [[Rep 0 3 HEXDIG, Ch 58 58,
        ls32, ha_address2], [Rep 0 3 HEXDIG, Cat (Ch 58 58) h16, ha_address2], [Cat (Ch 46 46)
        (Cat dec_octet (Cat (Ch 46 46) (Cat dec_octet (Cat (Ch 46 46) dec_octet)))), ha_address2],
        [DIGIT, Cat (Ch 46 46) (Cat dec_octet (Cat (Ch 46 46) (Cat dec_octet (Cat (Ch 46 46)
        dec_octet)))), ha_address2], [Rep 2 2 DIGIT, Cat (Ch 46 46) (Cat dec_octet (Cat (Ch 46 46)
        (Cat dec_octet (Cat (Ch 46 46) dec_octet)))), ha_address2], [Rep 0 3 HEXDIG,
        ha_address2]]]])
      else
      if s = 303 then ([-128, 32, 33, 46, 47, 48, 58, 59, 65, 71, 97, 103], [[[], [[Rep 0 2
        HEXDIG, Ch 58 58, ls32, Ch 32 32], [Rep 0 2 HEXDIG, Cat (Ch 58 58) h16, Ch 32 32], [Cat
        (Ch 46 46) (Cat dec_octet (Cat (Ch 46 46) (Cat dec_octet (Cat (Ch 46 46) dec_octet)))), Ch
        32 32], [DIGIT, Cat (Ch 46 46) (Cat dec_octet (Cat (Ch 46 46) (Cat dec_octet (Cat (Ch 46
        46) dec_octet)))), Ch 32 32], [Rep 0 2 HEXDIG, Ch 32 32]], [[Rep 0 2 HEXDIG, Ch 58 58,
        ls32, ha_to_port], [Rep 0 2 HEXDIG, Cat (Ch 58 58) h16, ha_to_port], [Cat (Ch 46 46) (Cat
        dec_octet (Cat (Ch 46 46) (Cat dec_octet (Cat (Ch 46 46) dec_octet)))), ha_to_port],
        [DIGIT, Cat (Ch 46 46) (Cat dec_octet (Cat (Ch 46 46) (Cat dec_octet (Cat (Ch 46 46)
        dec_octet)))), ha_to_port], [Rep 0 2 HEXDIG, ha_to_port]], [[Rep 0 2 HEXDIG, Ch 58 58,
        ls32, ha_to_end], [Rep 0 2 HEXDIG, Cat (Ch 58 58) h16, ha_to_end], [Cat (Ch 46 46) (Cat
        dec_octet (Cat (Ch 46 46) (Cat dec_octet (Cat (Ch 46 46) dec_octet)))), ha_to_end],
        [DIGIT, Cat (Ch 46 46) (Cat dec_octet (Cat (Ch 46 46) (Cat dec_octet (Cat (Ch 46 46)
        dec_octet)))), ha_to_end], [Rep 0 2 HEXDIG, ha_to_end]], [], [[Rep 0 2 HEXDIG, Ch 58 58,
        ls32, ha_address2], [Rep 0 2 HEXDIG, Cat (Ch 58 58) h16, ha_address2], [Cat (Ch 46 46)
        (Cat dec_octet (Cat (Ch 46 46) (Cat dec_octet (Cat (Ch 46 46) dec_octet)))), ha_address2],
        [DIGIT, Cat (Ch 46 46) (Cat dec_octet (Cat (Ch 46 46) (Cat dec_octet (Cat (Ch 46 46)
        dec_octet)))), ha_address2], [Rep 0 2 HEXDIG, ha_address2]]]])
      else
      ([-128, 32, 33, 46, 47, 48, 58, 59, 65, 71, 97, 103], [[[], [[Rep 0 1 HEXDIG, Ch 58 58,
        ls32, Ch 32 32], [Rep 0 1 HEXDIG, Cat (Ch 58 58) h16, Ch 32 32], [Cat (Ch 46 46) (Cat
        dec_octet (Cat (Ch 46 46) (Cat dec_octet (Cat (Ch 46 46) dec_octet)))), Ch 32 32], [Rep 0
        1 HEXDIG, Ch 32 32]], [[Rep 0 1 HEXDIG, Ch 58 58, ls32, ha_to_port], [Rep 0 1 HEXDIG, Cat
        (Ch 58 58) h16, ha_to_port], [Cat (Ch 46 46) (Cat dec_octet (Cat (Ch 46 46) (Cat dec_octet
        (Cat (Ch 46 46) dec_octet)))), ha_to_port], [Rep 0 1 HEXDIG, ha_to_port]], [[Rep 0 1
        HEXDIG, Ch 58 58, ls32, ha_to_end], [Rep 0 1 HEXDIG, Cat (Ch 58 58) h16, ha_to_end], [Cat
        (Ch 46 46) (Cat dec_octet (Cat (Ch 46 46) (Cat dec_octet (Cat (Ch 46 46) dec_octet)))),
        ha_to_end], [Rep 0 1 HEXDIG, ha_to_end]], [], [[Rep 0 1 HEXDIG, Ch 58 58, ls32,
        ha_address2], [Rep 0 1 HEXDIG, Cat (Ch 58 58) h16, ha_address2], [Cat (Ch 46 46) (Cat
        dec_octet (Cat (Ch 46 46) (Cat dec_octet (Cat (Ch 46 46) dec_octet)))), ha_address2], [Rep
        0 1 HEXDIG, ha_address2]]]]))"

definition ha_expects_39 :: certificate where
  "ha_expects_39 s =
     (if s = 305 then ([-128, 32, 33, 46, 47, 48, 53, 54, 58, 59, 65, 71, 97, 103], [[[], [[Rep 0
        3 HEXDIG, Ch 58 58, ls32, Ch 32 32], [Rep 0 3 HEXDIG, Cat (Ch 58 58) h16, Ch 32 32], [Cat
        (Ch 46 46) (Cat dec_octet (Cat (Ch 46 46) (Cat dec_octet (Cat (Ch 46 46) dec_octet)))), Ch
        32 32], [DIGIT, Cat (Ch 46 46) (Cat dec_octet (Cat (Ch 46 46) (Cat dec_octet (Cat (Ch 46
        46) dec_octet)))), Ch 32 32], [Cat (Ch 48 52) DIGIT, Cat (Ch 46 46) (Cat dec_octet (Cat
        (Ch 46 46) (Cat dec_octet (Cat (Ch 46 46) dec_octet)))), Ch 32 32], [Cat (Ch 53 53) (Ch 48
        53), Cat (Ch 46 46) (Cat dec_octet (Cat (Ch 46 46) (Cat dec_octet (Cat (Ch 46 46)
        dec_octet)))), Ch 32 32], [Rep 0 3 HEXDIG, Ch 32 32]], [[Rep 0 3 HEXDIG, Ch 58 58, ls32,
        ha_to_port], [Rep 0 3 HEXDIG, Cat (Ch 58 58) h16, ha_to_port], [Cat (Ch 46 46) (Cat
        dec_octet (Cat (Ch 46 46) (Cat dec_octet (Cat (Ch 46 46) dec_octet)))), ha_to_port],
        [DIGIT, Cat (Ch 46 46) (Cat dec_octet (Cat (Ch 46 46) (Cat dec_octet (Cat (Ch 46 46)
        dec_octet)))), ha_to_port], [Cat (Ch 48 52) DIGIT, Cat (Ch 46 46) (Cat dec_octet (Cat (Ch
        46 46) (Cat dec_octet (Cat (Ch 46 46) dec_octet)))), ha_to_port], [Cat (Ch 53 53) (Ch 48
        53), Cat (Ch 46 46) (Cat dec_octet (Cat (Ch 46 46) (Cat dec_octet (Cat (Ch 46 46)
        dec_octet)))), ha_to_port], [Rep 0 3 HEXDIG, ha_to_port]], [[Rep 0 3 HEXDIG, Ch 58 58,
        ls32, ha_to_end], [Rep 0 3 HEXDIG, Cat (Ch 58 58) h16, ha_to_end], [Cat (Ch 46 46) (Cat
        dec_octet (Cat (Ch 46 46) (Cat dec_octet (Cat (Ch 46 46) dec_octet)))), ha_to_end],
        [DIGIT, Cat (Ch 46 46) (Cat dec_octet (Cat (Ch 46 46) (Cat dec_octet (Cat (Ch 46 46)
        dec_octet)))), ha_to_end], [Cat (Ch 48 52) DIGIT, Cat (Ch 46 46) (Cat dec_octet (Cat (Ch
        46 46) (Cat dec_octet (Cat (Ch 46 46) dec_octet)))), ha_to_end], [Cat (Ch 53 53) (Ch 48
        53), Cat (Ch 46 46) (Cat dec_octet (Cat (Ch 46 46) (Cat dec_octet (Cat (Ch 46 46)
        dec_octet)))), ha_to_end], [Rep 0 3 HEXDIG, ha_to_end]], [], [[Rep 0 3 HEXDIG, Ch 58 58,
        ls32, ha_address2], [Rep 0 3 HEXDIG, Cat (Ch 58 58) h16, ha_address2], [Cat (Ch 46 46)
        (Cat dec_octet (Cat (Ch 46 46) (Cat dec_octet (Cat (Ch 46 46) dec_octet)))), ha_address2],
        [DIGIT, Cat (Ch 46 46) (Cat dec_octet (Cat (Ch 46 46) (Cat dec_octet (Cat (Ch 46 46)
        dec_octet)))), ha_address2], [Cat (Ch 48 52) DIGIT, Cat (Ch 46 46) (Cat dec_octet (Cat (Ch
        46 46) (Cat dec_octet (Cat (Ch 46 46) dec_octet)))), ha_address2], [Cat (Ch 53 53) (Ch 48
        53), Cat (Ch 46 46) (Cat dec_octet (Cat (Ch 46 46) (Cat dec_octet (Cat (Ch 46 46)
        dec_octet)))), ha_address2], [Rep 0 3 HEXDIG, ha_address2]]]])
      else
      if s = 306 then ([-128, 32, 33, 46, 47, 48, 54, 58, 59, 65, 71, 97, 103], [[[], [[Rep 0 2
        HEXDIG, Ch 58 58, ls32, Ch 32 32], [Rep 0 2 HEXDIG, Cat (Ch 58 58) h16, Ch 32 32], [Cat
        (Ch 46 46) (Cat dec_octet (Cat (Ch 46 46) (Cat dec_octet (Cat (Ch 46 46) dec_octet)))), Ch
        32 32], [Ch 48 53, Cat (Ch 46 46) (Cat dec_octet (Cat (Ch 46 46) (Cat dec_octet (Cat (Ch
        46 46) dec_octet)))), Ch 32 32], [Rep 0 2 HEXDIG, Ch 32 32]], [[Rep 0 2 HEXDIG, Ch 58 58,
        ls32, ha_to_port], [Rep 0 2 HEXDIG, Cat (Ch 58 58) h16, ha_to_port], [Cat (Ch 46 46) (Cat
        dec_octet (Cat (Ch 46 46) (Cat dec_octet (Cat (Ch 46 46) dec_octet)))), ha_to_port], [Ch
        48 53, Cat (Ch 46 46) (Cat dec_octet (Cat (Ch 46 46) (Cat dec_octet (Cat (Ch 46 46)
        dec_octet)))), ha_to_port], [Rep 0 2 HEXDIG, ha_to_port]], [[Rep 0 2 HEXDIG, Ch 58 58,
        ls32, ha_to_end], [Rep 0 2 HEXDIG, Cat (Ch 58 58) h16, ha_to_end], [Cat (Ch 46 46) (Cat
        dec_octet (Cat (Ch 46 46) (Cat dec_octet (Cat (Ch 46 46) dec_octet)))), ha_to_end], [Ch 48
        53, Cat (Ch 46 46) (Cat dec_octet (Cat (Ch 46 46) (Cat dec_octet (Cat (Ch 46 46)
        dec_octet)))), ha_to_end], [Rep 0 2 HEXDIG, ha_to_end]], [], [[Rep 0 2 HEXDIG, Ch 58 58,
        ls32, ha_address2], [Rep 0 2 HEXDIG, Cat (Ch 58 58) h16, ha_address2], [Cat (Ch 46 46)
        (Cat dec_octet (Cat (Ch 46 46) (Cat dec_octet (Cat (Ch 46 46) dec_octet)))), ha_address2],
        [Ch 48 53, Cat (Ch 46 46) (Cat dec_octet (Cat (Ch 46 46) (Cat dec_octet (Cat (Ch 46 46)
        dec_octet)))), ha_address2], [Rep 0 2 HEXDIG, ha_address2]]]])
      else
      if s = 307 then ([-128, 32, 33, 46, 47, 48, 58, 59, 65, 71, 97, 103], [[[], [[Rep 0 2
        HEXDIG, Ch 58 58, ls32, Ch 32 32], [Rep 0 2 HEXDIG, Cat (Ch 58 58) h16, Ch 32 32], [Cat
        (Ch 46 46) (Cat dec_octet (Cat (Ch 46 46) (Cat dec_octet (Cat (Ch 46 46) dec_octet)))), Ch
        32 32], [Rep 0 2 HEXDIG, Ch 32 32]], [[Rep 0 2 HEXDIG, Ch 58 58, ls32, ha_to_port], [Rep 0
        2 HEXDIG, Cat (Ch 58 58) h16, ha_to_port], [Cat (Ch 46 46) (Cat dec_octet (Cat (Ch 46 46)
        (Cat dec_octet (Cat (Ch 46 46) dec_octet)))), ha_to_port], [Rep 0 2 HEXDIG, ha_to_port]],
        [[Rep 0 2 HEXDIG, Ch 58 58, ls32, ha_to_end], [Rep 0 2 HEXDIG, Cat (Ch 58 58) h16,
        ha_to_end], [Cat (Ch 46 46) (Cat dec_octet (Cat (Ch 46 46) (Cat dec_octet (Cat (Ch 46 46)
        dec_octet)))), ha_to_end], [Rep 0 2 HEXDIG, ha_to_end]], [], [[Rep 0 2 HEXDIG, Ch 58 58,
        ls32, ha_address2], [Rep 0 2 HEXDIG, Cat (Ch 58 58) h16, ha_address2], [Cat (Ch 46 46)
        (Cat dec_octet (Cat (Ch 46 46) (Cat dec_octet (Cat (Ch 46 46) dec_octet)))), ha_address2],
        [Rep 0 2 HEXDIG, ha_address2]]]])
      else
      if s = 308 then ([-128, 32, 33, 46, 47, 48, 58, 59, 65, 71, 97, 103], [[[], [[Rep 0 3
        HEXDIG, Ch 58 58, ls32, Ch 32 32], [Rep 0 3 HEXDIG, Cat (Ch 58 58) h16, Ch 32 32], [Cat
        (Ch 46 46) (Cat dec_octet (Cat (Ch 46 46) (Cat dec_octet (Cat (Ch 46 46) dec_octet)))), Ch
        32 32], [DIGIT, Cat (Ch 46 46) (Cat dec_octet (Cat (Ch 46 46) (Cat dec_octet (Cat (Ch 46
        46) dec_octet)))), Ch 32 32], [Rep 0 3 HEXDIG, Ch 32 32]], [[Rep 0 3 HEXDIG, Ch 58 58,
        ls32, ha_to_port], [Rep 0 3 HEXDIG, Cat (Ch 58 58) h16, ha_to_port], [Cat (Ch 46 46) (Cat
        dec_octet (Cat (Ch 46 46) (Cat dec_octet (Cat (Ch 46 46) dec_octet)))), ha_to_port],
        [DIGIT, Cat (Ch 46 46) (Cat dec_octet (Cat (Ch 46 46) (Cat dec_octet (Cat (Ch 46 46)
        dec_octet)))), ha_to_port], [Rep 0 3 HEXDIG, ha_to_port]], [[Rep 0 3 HEXDIG, Ch 58 58,
        ls32, ha_to_end], [Rep 0 3 HEXDIG, Cat (Ch 58 58) h16, ha_to_end], [Cat (Ch 46 46) (Cat
        dec_octet (Cat (Ch 46 46) (Cat dec_octet (Cat (Ch 46 46) dec_octet)))), ha_to_end],
        [DIGIT, Cat (Ch 46 46) (Cat dec_octet (Cat (Ch 46 46) (Cat dec_octet (Cat (Ch 46 46)
        dec_octet)))), ha_to_end], [Rep 0 3 HEXDIG, ha_to_end]], [], [[Rep 0 3 HEXDIG, Ch 58 58,
        ls32, ha_address2], [Rep 0 3 HEXDIG, Cat (Ch 58 58) h16, ha_address2], [Cat (Ch 46 46)
        (Cat dec_octet (Cat (Ch 46 46) (Cat dec_octet (Cat (Ch 46 46) dec_octet)))), ha_address2],
        [DIGIT, Cat (Ch 46 46) (Cat dec_octet (Cat (Ch 46 46) (Cat dec_octet (Cat (Ch 46 46)
        dec_octet)))), ha_address2], [Rep 0 3 HEXDIG, ha_address2]]]])
      else
      if s = 309 then ([-128, 32, 33, 48, 58, 59, 65, 71, 97, 103], [[[], [[Rep 0 3 HEXDIG, Ch 58
        58, ls32, Ch 32 32], [Rep 0 3 HEXDIG, Cat (Ch 58 58) h16, Ch 32 32], [Rep 0 3 HEXDIG, Ch
        32 32]], [[Rep 0 3 HEXDIG, Ch 58 58, ls32, ha_to_port], [Rep 0 3 HEXDIG, Cat (Ch 58 58)
        h16, ha_to_port], [Rep 0 3 HEXDIG, ha_to_port]], [[Rep 0 3 HEXDIG, Ch 58 58, ls32,
        ha_to_end], [Rep 0 3 HEXDIG, Cat (Ch 58 58) h16, ha_to_end], [Rep 0 3 HEXDIG, ha_to_end]],
        [], [[Rep 0 3 HEXDIG, Ch 58 58, ls32, ha_address2], [Rep 0 3 HEXDIG, Cat (Ch 58 58) h16,
        ha_address2], [Rep 0 3 HEXDIG, ha_address2]]]])
      else
      if s = 310 then ([-128, 32, 33, 48, 49, 50, 51, 58, 65, 71, 97, 103], [[[], [[Cat (Rep 2 2
        h16_colon) ls32, Ch 32 32], [Cat h16_colon ls32, Ch 32 32], [ls32, Ch 32 32], [h16, Ch 32
        32], [Ch 32 32]], [[Cat (Rep 2 2 h16_colon) ls32, ha_to_port], [Cat h16_colon ls32,
        ha_to_port], [ls32, ha_to_port], [h16, ha_to_port], [ha_to_port]], [[Cat (Rep 2 2
        h16_colon) ls32, ha_to_end], [Cat h16_colon ls32, ha_to_end], [ls32, ha_to_end], [h16,
        ha_to_end], [ha_to_end]], [], [[Cat (Rep 2 2 h16_colon) ls32, ha_address2], [Cat h16_colon
        ls32, ha_address2], [ls32, ha_address2], [h16, ha_address2], [ha_address2]]]])
      else
      if s = 311 then ([-128, 32, 33, 46, 47, 48, 58, 59, 65, 71, 97, 103], [[[], [[Rep 0 3
        HEXDIG, Ch 58 58, h16_colon, ls32, Ch 32 32], [Rep 0 3 HEXDIG, Ch 58 58, ls32, Ch 32 32],
        [Rep 0 3 HEXDIG, Cat (Ch 58 58) h16, Ch 32 32], [Cat (Ch 46 46) (Cat dec_octet (Cat (Ch 46
        46) (Cat dec_octet (Cat (Ch 46 46) dec_octet)))), Ch 32 32], [Rep 0 3 HEXDIG, Ch 32 32]],
        [[Rep 0 3 HEXDIG, Ch 58 58, h16_colon, ls32, ha_to_port], [Rep 0 3 HEXDIG, Ch 58 58, ls32,
        ha_to_port], [Rep 0 3 HEXDIG, Cat (Ch 58 58) h16, ha_to_port], [Cat (Ch 46 46) (Cat
        dec_octet (Cat (Ch 46 46) (Cat dec_octet (Cat (Ch 46 46) dec_octet)))), ha_to_port], [Rep
        0 3 HEXDIG, ha_to_port]], [[Rep 0 3 HEXDIG, Ch 58 58, h16_colon, ls32, ha_to_end], [Rep 0
        3 HEXDIG, Ch 58 58, ls32, ha_to_end], [Rep 0 3 HEXDIG, Cat (Ch 58 58) h16, ha_to_end],
        [Cat (Ch 46 46) (Cat dec_octet (Cat (Ch 46 46) (Cat dec_octet (Cat (Ch 46 46)
        dec_octet)))), ha_to_end], [Rep 0 3 HEXDIG, ha_to_end]], [], [[Rep 0 3 HEXDIG, Ch 58 58,
        h16_colon, ls32, ha_address2], [Rep 0 3 HEXDIG, Ch 58 58, ls32, ha_address2], [Rep 0 3
        HEXDIG, Cat (Ch 58 58) h16, ha_address2], [Cat (Ch 46 46) (Cat dec_octet (Cat (Ch 46 46)
        (Cat dec_octet (Cat (Ch 46 46) dec_octet)))), ha_address2], [Rep 0 3 HEXDIG,
        ha_address2]]]])
      else
      ([-128, 32, 33, 48, 58, 59, 65, 71, 97, 103], [[[], [[Rep 0 2 HEXDIG, Ch 58 58, h16_colon,
        ls32, Ch 32 32], [Rep 0 2 HEXDIG, Ch 58 58, ls32, Ch 32 32], [Rep 0 2 HEXDIG, Cat (Ch 58
        58) h16, Ch 32 32], [Rep 0 2 HEXDIG, Ch 32 32]], [[Rep 0 2 HEXDIG, Ch 58 58, h16_colon,
        ls32, ha_to_port], [Rep 0 2 HEXDIG, Ch 58 58, ls32, ha_to_port], [Rep 0 2 HEXDIG, Cat (Ch
        58 58) h16, ha_to_port], [Rep 0 2 HEXDIG, ha_to_port]], [[Rep 0 2 HEXDIG, Ch 58 58,
        h16_colon, ls32, ha_to_end], [Rep 0 2 HEXDIG, Ch 58 58, ls32, ha_to_end], [Rep 0 2 HEXDIG,
        Cat (Ch 58 58) h16, ha_to_end], [Rep 0 2 HEXDIG, ha_to_end]], [], [[Rep 0 2 HEXDIG, Ch 58
        58, h16_colon, ls32, ha_address2], [Rep 0 2 HEXDIG, Ch 58 58, ls32, ha_address2], [Rep 0 2
        HEXDIG, Cat (Ch 58 58) h16, ha_address2], [Rep 0 2 HEXDIG, ha_address2]]]]))"

definition ha_expects_40 :: certificate where
  "ha_expects_40 s =
     (if s = 313 then ([-128, 32, 33, 48, 58, 59, 65, 71, 97, 103], [[[], [[Rep 0 1 HEXDIG, Ch 58
        58, h16_colon, ls32, Ch 32 32], [Rep 0 1 HEXDIG, Ch 58 58, ls32, Ch 32 32], [Rep 0 1
        HEXDIG, Cat (Ch 58 58) h16, Ch 32 32], [Rep 0 1 HEXDIG, Ch 32 32]], [[Rep 0 1 HEXDIG, Ch
        58 58, h16_colon, ls32, ha_to_port], [Rep 0 1 HEXDIG, Ch 58 58, ls32, ha_to_port], [Rep 0
        1 HEXDIG, Cat (Ch 58 58) h16, ha_to_port], [Rep 0 1 HEXDIG, ha_to_port]], [[Rep 0 1
        HEXDIG, Ch 58 58, h16_colon, ls32, ha_to_end], [Rep 0 1 HEXDIG, Ch 58 58, ls32,
        ha_to_end], [Rep 0 1 HEXDIG, Cat (Ch 58 58) h16, ha_to_end], [Rep 0 1 HEXDIG, ha_to_end]],
        [], [[Rep 0 1 HEXDIG, Ch 58 58, h16_colon, ls32, ha_address2], [Rep 0 1 HEXDIG, Ch 58 58,
        ls32, ha_address2], [Rep 0 1 HEXDIG, Cat (Ch 58 58) h16, ha_address2], [Rep 0 1 HEXDIG,
        ha_address2]]]])
      else
      if s = 314 then ([-128, 32, 33, 58, 59], [[[], [[Ch 58 58, h16_colon, ls32, Ch 32 32], [Ch
        58 58, ls32, Ch 32 32], [Cat (Ch 58 58) h16, Ch 32 32], [Ch 32 32]], [[Ch 58 58,
        h16_colon, ls32, ha_to_port], [Ch 58 58, ls32, ha_to_port], [Cat (Ch 58 58) h16,
        ha_to_port], [ha_to_port]], [[Ch 58 58, h16_colon, ls32, ha_to_end], [Ch 58 58, ls32,
        ha_to_end], [Cat (Ch 58 58) h16, ha_to_end], [ha_to_end]], [], [[Ch 58 58, h16_colon,
        ls32, ha_address2], [Ch 58 58, ls32, ha_address2], [Cat (Ch 58 58) h16, ha_address2],
        [ha_address2]]]])
      else
      if s = 315 then ([-128, 48, 49, 50, 51, 58, 65, 71, 97, 103], [[[], [[h16_colon, ls32, Ch 32
        32], [ls32, Ch 32 32], [h16, Ch 32 32]], [[h16_colon, ls32, ha_to_port], [ls32,
        ha_to_port], [h16, ha_to_port]], [[h16_colon, ls32, ha_to_end], [ls32, ha_to_end], [h16,
        ha_to_end]], [], [[h16_colon, ls32, ha_address2], [ls32, ha_address2], [h16,
        ha_address2]]]])
      else
      if s = 316 then ([-128, 32, 33, 46, 47, 48, 58, 59, 65, 71, 97, 103], [[[], [[Rep 0 3
        HEXDIG, Ch 58 58, h16_colon, ls32, Ch 32 32], [Rep 0 3 HEXDIG, Ch 58 58, ls32, Ch 32 32],
        [Rep 0 3 HEXDIG, Cat (Ch 58 58) h16, Ch 32 32], [Cat (Ch 46 46) (Cat dec_octet (Cat (Ch 46
        46) (Cat dec_octet (Cat (Ch 46 46) dec_octet)))), Ch 32 32], [DIGIT, Cat (Ch 46 46) (Cat
        dec_octet (Cat (Ch 46 46) (Cat dec_octet (Cat (Ch 46 46) dec_octet)))), Ch 32 32], [Rep 2
        2 DIGIT, Cat (Ch 46 46) (Cat dec_octet (Cat (Ch 46 46) (Cat dec_octet (Cat (Ch 46 46)
        dec_octet)))), Ch 32 32], [Rep 0 3 HEXDIG, Ch 32 32]], [[Rep 0 3 HEXDIG, Ch 58 58,
        h16_colon, ls32, ha_to_port], [Rep 0 3 HEXDIG, Ch 58 58, ls32, ha_to_port], [Rep 0 3
        HEXDIG, Cat (Ch 58 58) h16, ha_to_port], [Cat (Ch 46 46) (Cat dec_octet (Cat (Ch 46 46)
        (Cat dec_octet (Cat (Ch 46 46) dec_octet)))), ha_to_port], [DIGIT, Cat (Ch 46 46) (Cat
        dec_octet (Cat (Ch 46 46) (Cat dec_octet (Cat (Ch 46 46) dec_octet)))), ha_to_port], [Rep
        2 2 DIGIT, Cat (Ch 46 46) (Cat dec_octet (Cat (Ch 46 46) (Cat dec_octet (Cat (Ch 46 46)
        dec_octet)))), ha_to_port], [Rep 0 3 HEXDIG, ha_to_port]], [[Rep 0 3 HEXDIG, Ch 58 58,
        h16_colon, ls32, ha_to_end], [Rep 0 3 HEXDIG, Ch 58 58, ls32, ha_to_end], [Rep 0 3 HEXDIG,
        Cat (Ch 58 58) h16, ha_to_end], [Cat (Ch 46 46) (Cat dec_octet (Cat (Ch 46 46) (Cat
        dec_octet (Cat (Ch 46 46) dec_octet)))), ha_to_end], [DIGIT, Cat (Ch 46 46) (Cat dec_octet
        (Cat (Ch 46 46) (Cat dec_octet (Cat (Ch 46 46) dec_octet)))), ha_to_end], [Rep 2 2 DIGIT,
        Cat (Ch 46 46) (Cat dec_octet (Cat (Ch 46 46) (Cat dec_octet (Cat (Ch 46 46)
        dec_octet)))), ha_to_end], [Rep 0 3 HEXDIG, ha_to_end]], [], [[Rep 0 3 HEXDIG, Ch 58 58,
        h16_colon, ls32, ha_address2], [Rep 0 3 HEXDIG, Ch 58 58, ls32, ha_address2], [Rep 0 3
        HEXDIG, Cat (Ch 58 58) h16, ha_address2], [Cat (Ch 46 46) (Cat dec_octet (Cat (Ch 46 46)
        (Cat dec_octet (Cat (Ch 46 46) dec_octet)))), ha_address2], [DIGIT, Cat (Ch 46 46) (Cat
        dec_octet (Cat (Ch 46 46) (Cat dec_octet (Cat (Ch 46 46) dec_octet)))), ha_address2], [Rep
        2 2 DIGIT, Cat (Ch 46 46) (Cat dec_octet (Cat (Ch 46 46) (Cat dec_octet (Cat (Ch 46 46)
        dec_octet)))), ha_address2], [Rep 0 3 HEXDIG, ha_address2]]]])
      else
      if s = 317 then ([-128, 32, 33, 46, 47, 48, 58, 59, 65, 71, 97, 103], [[[], [[Rep 0 2
        HEXDIG, Ch 58 58, h16_colon, ls32, Ch 32 32], [Rep 0 2 HEXDIG, Ch 58 58, ls32, Ch 32 32],
        [Rep 0 2 HEXDIG, Cat (Ch 58 58) h16, Ch 32 32], [Cat (Ch 46 46) (Cat dec_octet (Cat (Ch 46
        46) (Cat dec_octet (Cat (Ch 46 46) dec_octet)))), Ch 32 32], [DIGIT, Cat (Ch 46 46) (Cat
        dec_octet (Cat (Ch 46 46) (Cat dec_octet (Cat (Ch 46 46) dec_octet)))), Ch 32 32], [Rep 0
        2 HEXDIG, Ch 32 32]], [[Rep 0 2 HEXDIG, Ch 58 58, h16_colon, ls32, ha_to_port], [Rep 0 2
        HEXDIG, Ch 58 58, ls32, ha_to_port], [Rep 0 2 HEXDIG, Cat (Ch 58 58) h16, ha_to_port],
        [Cat (Ch 46 46) (Cat dec_octet (Cat (Ch 46 46) (Cat dec_octet (Cat (Ch 46 46)
        dec_octet)))), ha_to_port], [DIGIT, Cat (Ch 46 46) (Cat dec_octet (Cat (Ch 46 46) (Cat
        dec_octet (Cat (Ch 46 46) dec_octet)))), ha_to_port], [Rep 0 2 HEXDIG, ha_to_port]], [[Rep
        0 2 HEXDIG, Ch 58 58, h16_colon, ls32, ha_to_end], [Rep 0 2 HEXDIG, Ch 58 58, ls32,
        ha_to_end], [Rep 0 2 HEXDIG, Cat (Ch 58 58) h16, ha_to_end], [Cat (Ch 46 46) (Cat
        dec_octet (Cat (Ch 46 46) (Cat dec_octet (Cat (Ch 46 46) dec_octet)))), ha_to_end],
        [DIGIT, Cat (Ch 46 46) (Cat dec_octet (Cat (Ch 46 46) (Cat dec_octet (Cat (Ch 46 46)
        dec_octet)))), ha_to_end], [Rep 0 2 HEXDIG, ha_to_end]], [], [[Rep 0 2 HEXDIG, Ch 58 58,
        h16_colon, ls32, ha_address2], [Rep 0 2 HEXDIG, Ch 58 58, ls32, ha_address2], [Rep 0 2
        HEXDIG, Cat (Ch 58 58) h16, ha_address2], [Cat (Ch 46 46) (Cat dec_octet (Cat (Ch 46 46)
        (Cat dec_octet (Cat (Ch 46 46) dec_octet)))), ha_address2], [DIGIT, Cat (Ch 46 46) (Cat
        dec_octet (Cat (Ch 46 46) (Cat dec_octet (Cat (Ch 46 46) dec_octet)))), ha_address2], [Rep
        0 2 HEXDIG, ha_address2]]]])
      else
      if s = 318 then ([-128, 32, 33, 46, 47, 48, 58, 59, 65, 71, 97, 103], [[[], [[Rep 0 1
        HEXDIG, Ch 58 58, h16_colon, ls32, Ch 32 32], [Rep 0 1 HEXDIG, Ch 58 58, ls32, Ch 32 32],
        [Rep 0 1 HEXDIG, Cat (Ch 58 58) h16, Ch 32 32], [Cat (Ch 46 46) (Cat dec_octet (Cat (Ch 46
        46) (Cat dec_octet (Cat (Ch 46 46) dec_octet)))), Ch 32 32], [Rep 0 1 HEXDIG, Ch 32 32]],
        [[Rep 0 1 HEXDIG, Ch 58 58, h16_colon, ls32, ha_to_port], [Rep 0 1 HEXDIG, Ch 58 58, ls32,
        ha_to_port], [Rep 0 1 HEXDIG, Cat (Ch 58 58) h16, ha_to_port], [Cat (Ch 46 46) (Cat
        dec_octet (Cat (Ch 46 46) (Cat dec_octet (Cat (Ch 46 46) dec_octet)))), ha_to_port], [Rep
        0 1 HEXDIG, ha_to_port]], [[Rep 0 1 HEXDIG, Ch 58 58, h16_colon, ls32, ha_to_end], [Rep 0
        1 HEXDIG, Ch 58 58, ls32, ha_to_end], [Rep 0 1 HEXDIG, Cat (Ch 58 58) h16, ha_to_end],
        [Cat (Ch 46 46) (Cat dec_octet (Cat (Ch 46 46) (Cat dec_octet (Cat (Ch 46 46)
        dec_octet)))), ha_to_end], [Rep 0 1 HEXDIG, ha_to_end]], [], [[Rep 0 1 HEXDIG, Ch 58 58,
        h16_colon, ls32, ha_address2], [Rep 0 1 HEXDIG, Ch 58 58, ls32, ha_address2], [Rep 0 1
        HEXDIG, Cat (Ch 58 58) h16, ha_address2], [Cat (Ch 46 46) (Cat dec_octet (Cat (Ch 46 46)
        (Cat dec_octet (Cat (Ch 46 46) dec_octet)))), ha_address2], [Rep 0 1 HEXDIG,
        ha_address2]]]])
      else
      if s = 319 then ([-128, 32, 33, 46, 47, 48, 53, 54, 58, 59, 65, 71, 97, 103], [[[], [[Rep 0
        3 HEXDIG, Ch 58 58, h16_colon, ls32, Ch 32 32], [Rep 0 3 HEXDIG, Ch 58 58, ls32, Ch 32
        32], [Rep 0 3 HEXDIG, Cat (Ch 58 58) h16, Ch 32 32], [Cat (Ch 46 46) (Cat dec_octet (Cat
        (Ch 46 46) (Cat dec_octet (Cat (Ch 46 46) dec_octet)))), Ch 32 32], [DIGIT, Cat (Ch 46 46)
        (Cat dec_octet (Cat (Ch 46 46) (Cat dec_octet (Cat (Ch 46 46) dec_octet)))), Ch 32 32],
        [Cat (Ch 48 52) DIGIT, Cat (Ch 46 46) (Cat dec_octet (Cat (Ch 46 46) (Cat dec_octet (Cat
        (Ch 46 46) dec_octet)))), Ch 32 32], [Cat (Ch 53 53) (Ch 48 53), Cat (Ch 46 46) (Cat
        dec_octet (Cat (Ch 46 46) (Cat dec_octet (Cat (Ch 46 46) dec_octet)))), Ch 32 32], [Rep 0
        3 HEXDIG, Ch 32 32]], [[Rep 0 3 HEXDIG, Ch 58 58, h16_colon, ls32, ha_to_port], [Rep 0 3
        HEXDIG, Ch 58 58, ls32, ha_to_port], [Rep 0 3 HEXDIG, Cat (Ch 58 58) h16, ha_to_port],
        [Cat (Ch 46 46) (Cat dec_octet (Cat (Ch 46 46) (Cat dec_octet (Cat (Ch 46 46)
        dec_octet)))), ha_to_port], [DIGIT, Cat (Ch 46 46) (Cat dec_octet (Cat (Ch 46 46) (Cat
        dec_octet (Cat (Ch 46 46) dec_octet)))), ha_to_port], [Cat (Ch 48 52) DIGIT, Cat (Ch 46
        46) (Cat dec_octet (Cat (Ch 46 46) (Cat dec_octet (Cat (Ch 46 46) dec_octet)))),
        ha_to_port], [Cat (Ch 53 53) (Ch 48 53), Cat (Ch 46 46) (Cat dec_octet (Cat (Ch 46 46)
        (Cat dec_octet (Cat (Ch 46 46) dec_octet)))), ha_to_port], [Rep 0 3 HEXDIG, ha_to_port]],
        [[Rep 0 3 HEXDIG, Ch 58 58, h16_colon, ls32, ha_to_end], [Rep 0 3 HEXDIG, Ch 58 58, ls32,
        ha_to_end], [Rep 0 3 HEXDIG, Cat (Ch 58 58) h16, ha_to_end], [Cat (Ch 46 46) (Cat
        dec_octet (Cat (Ch 46 46) (Cat dec_octet (Cat (Ch 46 46) dec_octet)))), ha_to_end],
        [DIGIT, Cat (Ch 46 46) (Cat dec_octet (Cat (Ch 46 46) (Cat dec_octet (Cat (Ch 46 46)
        dec_octet)))), ha_to_end], [Cat (Ch 48 52) DIGIT, Cat (Ch 46 46) (Cat dec_octet (Cat (Ch
        46 46) (Cat dec_octet (Cat (Ch 46 46) dec_octet)))), ha_to_end], [Cat (Ch 53 53) (Ch 48
        53), Cat (Ch 46 46) (Cat dec_octet (Cat (Ch 46 46) (Cat dec_octet (Cat (Ch 46 46)
        dec_octet)))), ha_to_end], [Rep 0 3 HEXDIG, ha_to_end]], [], [[Rep 0 3 HEXDIG, Ch 58 58,
        h16_colon, ls32, ha_address2], [Rep 0 3 HEXDIG, Ch 58 58, ls32, ha_address2], [Rep 0 3
        HEXDIG, Cat (Ch 58 58) h16, ha_address2], [Cat (Ch 46 46) (Cat dec_octet (Cat (Ch 46 46)
        (Cat dec_octet (Cat (Ch 46 46) dec_octet)))), ha_address2], [DIGIT, Cat (Ch 46 46) (Cat
        dec_octet (Cat (Ch 46 46) (Cat dec_octet (Cat (Ch 46 46) dec_octet)))), ha_address2], [Cat
        (Ch 48 52) DIGIT, Cat (Ch 46 46) (Cat dec_octet (Cat (Ch 46 46) (Cat dec_octet (Cat (Ch 46
        46) dec_octet)))), ha_address2], [Cat (Ch 53 53) (Ch 48 53), Cat (Ch 46 46) (Cat dec_octet
        (Cat (Ch 46 46) (Cat dec_octet (Cat (Ch 46 46) dec_octet)))), ha_address2], [Rep 0 3
        HEXDIG, ha_address2]]]])
      else
      ([-128, 32, 33, 46, 47, 48, 54, 58, 59, 65, 71, 97, 103], [[[], [[Rep 0 2 HEXDIG, Ch 58 58,
        h16_colon, ls32, Ch 32 32], [Rep 0 2 HEXDIG, Ch 58 58, ls32, Ch 32 32], [Rep 0 2 HEXDIG,
        Cat (Ch 58 58) h16, Ch 32 32], [Cat (Ch 46 46) (Cat dec_octet (Cat (Ch 46 46) (Cat
        dec_octet (Cat (Ch 46 46) dec_octet)))), Ch 32 32], [Ch 48 53, Cat (Ch 46 46) (Cat
        dec_octet (Cat (Ch 46 46) (Cat dec_octet (Cat (Ch 46 46) dec_octet)))), Ch 32 32], [Rep 0
        2 HEXDIG, Ch 32 32]], [[Rep 0 2 HEXDIG, Ch 58 58, h16_colon, ls32, ha_to_port], [Rep 0 2
        HEXDIG, Ch 58 58, ls32, ha_to_port], [Rep 0 2 HEXDIG, Cat (Ch 58 58) h16, ha_to_port],
        [Cat (Ch 46 46) (Cat dec_octet (Cat (Ch 46 46) (Cat dec_octet (Cat (Ch 46 46)
        dec_octet)))), ha_to_port], [Ch 48 53, Cat (Ch 46 46) (Cat dec_octet (Cat (Ch 46 46) (Cat
        dec_octet (Cat (Ch 46 46) dec_octet)))), ha_to_port], [Rep 0 2 HEXDIG, ha_to_port]], [[Rep
        0 2 HEXDIG, Ch 58 58, h16_colon, ls32, ha_to_end], [Rep 0 2 HEXDIG, Ch 58 58, ls32,
        ha_to_end], [Rep 0 2 HEXDIG, Cat (Ch 58 58) h16, ha_to_end], [Cat (Ch 46 46) (Cat
        dec_octet (Cat (Ch 46 46) (Cat dec_octet (Cat (Ch 46 46) dec_octet)))), ha_to_end], [Ch 48
        53, Cat (Ch 46 46) (Cat dec_octet (Cat (Ch 46 46) (Cat dec_octet (Cat (Ch 46 46)
        dec_octet)))), ha_to_end], [Rep 0 2 HEXDIG, ha_to_end]], [], [[Rep 0 2 HEXDIG, Ch 58 58,
        h16_colon, ls32, ha_address2], [Rep 0 2 HEXDIG, Ch 58 58, ls32, ha_address2], [Rep 0 2
        HEXDIG, Cat (Ch 58 58) h16, ha_address2], [Cat (Ch 46 46) (Cat dec_octet (Cat (Ch 46 46)
        (Cat dec_octet (Cat (Ch 46 46) dec_octet)))), ha_address2], [Ch 48 53, Cat (Ch 46 46) (Cat
        dec_octet (Cat (Ch 46 46) (Cat dec_octet (Cat (Ch 46 46) dec_octet)))), ha_address2], [Rep
        0 2 HEXDIG, ha_address2]]]]))"

definition ha_expects_41 :: certificate where
  "ha_expects_41 s =
     (if s = 321 then ([-128, 32, 33, 46, 47, 48, 58, 59, 65, 71, 97, 103], [[[], [[Rep 0 2
        HEXDIG, Ch 58 58, h16_colon, ls32, Ch 32 32], [Rep 0 2 HEXDIG, Ch 58 58, ls32, Ch 32 32],
        [Rep 0 2 HEXDIG, Cat (Ch 58 58) h16, Ch 32 32], [Cat (Ch 46 46) (Cat dec_octet (Cat (Ch 46
        46) (Cat dec_octet (Cat (Ch 46 46) dec_octet)))), Ch 32 32], [Rep 0 2 HEXDIG, Ch 32 32]],
        [[Rep 0 2 HEXDIG, Ch 58 58, h16_colon, ls32, ha_to_port], [Rep 0 2 HEXDIG, Ch 58 58, ls32,
        ha_to_port], [Rep 0 2 HEXDIG, Cat (Ch 58 58) h16, ha_to_port], [Cat (Ch 46 46) (Cat
        dec_octet (Cat (Ch 46 46) (Cat dec_octet (Cat (Ch 46 46) dec_octet)))), ha_to_port], [Rep
        0 2 HEXDIG, ha_to_port]], [[Rep 0 2 HEXDIG, Ch 58 58, h16_colon, ls32, ha_to_end], [Rep 0
        2 HEXDIG, Ch 58 58, ls32, ha_to_end], [Rep 0 2 HEXDIG, Cat (Ch 58 58) h16, ha_to_end],
        [Cat (Ch 46 46) (Cat dec_octet (Cat (Ch 46 46) (Cat dec_octet (Cat (Ch 46 46)
        dec_octet)))), ha_to_end], [Rep 0 2 HEXDIG, ha_to_end]], [], [[Rep 0 2 HEXDIG, Ch 58 58,
        h16_colon, ls32, ha_address2], [Rep 0 2 HEXDIG, Ch 58 58, ls32, ha_address2], [Rep 0 2
        HEXDIG, Cat (Ch 58 58) h16, ha_address2], [Cat (Ch 46 46) (Cat dec_octet (Cat (Ch 46 46)
        (Cat dec_octet (Cat (Ch 46 46) dec_octet)))), ha_address2], [Rep 0 2 HEXDIG,
        ha_address2]]]])
      else
      if s = 322 then ([-128, 32, 33, 46, 47, 48, 58, 59, 65, 71, 97, 103], [[[], [[Rep 0 3
        HEXDIG, Ch 58 58, h16_colon, ls32, Ch 32 32], [Rep 0 3 HEXDIG, Ch 58 58, ls32, Ch 32 32],
        [Rep 0 3 HEXDIG, Cat (Ch 58 58) h16, Ch 32 32], [Cat (Ch 46 46) (Cat dec_octet (Cat (Ch 46
        46) (Cat dec_octet (Cat (Ch 46 46) dec_octet)))), Ch 32 32], [DIGIT, Cat (Ch 46 46) (Cat
        dec_octet (Cat (Ch 46 46) (Cat dec_octet (Cat (Ch 46 46) dec_octet)))), Ch 32 32], [Rep 0
        3 HEXDIG, Ch 32 32]], [[Rep 0 3 HEXDIG, Ch 58 58, h16_colon, ls32, ha_to_port], [Rep 0 3
        HEXDIG, Ch 58 58, ls32, ha_to_port], [Rep 0 3 HEXDIG, Cat (Ch 58 58) h16, ha_to_port],
        [Cat (Ch 46 46) (Cat dec_octet (Cat (Ch 46 46) (Cat dec_octet (Cat (Ch 46 46)
        dec_octet)))), ha_to_port], [DIGIT, Cat (Ch 46 46) (Cat dec_octet (Cat (Ch 46 46) (Cat
        dec_octet (Cat (Ch 46 46) dec_octet)))), ha_to_port], [Rep 0 3 HEXDIG, ha_to_port]], [[Rep
        0 3 HEXDIG, Ch 58 58, h16_colon, ls32, ha_to_end], [Rep 0 3 HEXDIG, Ch 58 58, ls32,
        ha_to_end], [Rep 0 3 HEXDIG, Cat (Ch 58 58) h16, ha_to_end], [Cat (Ch 46 46) (Cat
        dec_octet (Cat (Ch 46 46) (Cat dec_octet (Cat (Ch 46 46) dec_octet)))), ha_to_end],
        [DIGIT, Cat (Ch 46 46) (Cat dec_octet (Cat (Ch 46 46) (Cat dec_octet (Cat (Ch 46 46)
        dec_octet)))), ha_to_end], [Rep 0 3 HEXDIG, ha_to_end]], [], [[Rep 0 3 HEXDIG, Ch 58 58,
        h16_colon, ls32, ha_address2], [Rep 0 3 HEXDIG, Ch 58 58, ls32, ha_address2], [Rep 0 3
        HEXDIG, Cat (Ch 58 58) h16, ha_address2], [Cat (Ch 46 46) (Cat dec_octet (Cat (Ch 46 46)
        (Cat dec_octet (Cat (Ch 46 46) dec_octet)))), ha_address2], [DIGIT, Cat (Ch 46 46) (Cat
        dec_octet (Cat (Ch 46 46) (Cat dec_octet (Cat (Ch 46 46) dec_octet)))), ha_address2], [Rep
        0 3 HEXDIG, ha_address2]]]])
      else
      if s = 323 then ([-128, 32, 33, 48, 58, 59, 65, 71, 97, 103], [[[], [[Rep 0 3 HEXDIG, Ch 58
        58, h16_colon, ls32, Ch 32 32], [Rep 0 3 HEXDIG, Ch 58 58, ls32, Ch 32 32], [Rep 0 3
        HEXDIG, Cat (Ch 58 58) h16, Ch 32 32], [Rep 0 3 HEXDIG, Ch 32 32]], [[Rep 0 3 HEXDIG, Ch
        58 58, h16_colon, ls32, ha_to_port], [Rep 0 3 HEXDIG, Ch 58 58, ls32, ha_to_port], [Rep 0
        3 HEXDIG, Cat (Ch 58 58) h16, ha_to_port], [Rep 0 3 HEXDIG, ha_to_port]], [[Rep 0 3
        HEXDIG, Ch 58 58, h16_colon, ls32, ha_to_end], [Rep 0 3 HEXDIG, Ch 58 58, ls32,
        ha_to_end], [Rep 0 3 HEXDIG, Cat (Ch 58 58) h16, ha_to_end], [Rep 0 3 HEXDIG, ha_to_end]],
        [], [[Rep 0 3 HEXDIG, Ch 58 58, h16_colon, ls32, ha_address2], [Rep 0 3 HEXDIG, Ch 58 58,
        ls32, ha_address2], [Rep 0 3 HEXDIG, Cat (Ch 58 58) h16, ha_address2], [Rep 0 3 HEXDIG,
        ha_address2]]]])
      else
      if s = 324 then ([-128, 32, 33, 48, 49, 50, 51, 58, 65, 71, 97, 103], [[[], [[Cat (Rep 3 3
        h16_colon) ls32, Ch 32 32], [Cat (Rep 2 2 h16_colon) ls32, Ch 32 32], [Cat h16_colon ls32,
        Ch 32 32], [ls32, Ch 32 32], [h16, Ch 32 32], [Ch 32 32]], [[Cat (Rep 3 3 h16_colon) ls32,
        ha_to_port], [Cat (Rep 2 2 h16_colon) ls32, ha_to_port], [Cat h16_colon ls32, ha_to_port],
        [ls32, ha_to_port], [h16, ha_to_port], [ha_to_port]], [[Cat (Rep 3 3 h16_colon) ls32,
        ha_to_end], [Cat (Rep 2 2 h16_colon) ls32, ha_to_end], [Cat h16_colon ls32, ha_to_end],
        [ls32, ha_to_end], [h16, ha_to_end], [ha_to_end]], [], [[Cat (Rep 3 3 h16_colon) ls32,
        ha_address2], [Cat (Rep 2 2 h16_colon) ls32, ha_address2], [Cat h16_colon ls32,
        ha_address2], [ls32, ha_address2], [h16, ha_address2], [ha_address2]]]])
      else
      if s = 325 then ([-128, 32, 33, 46, 47, 48, 58, 59, 65, 71, 97, 103], [[[], [[Rep 0 3
        HEXDIG, Ch 58 58, Rep 2 2 h16_colon, ls32, Ch 32 32], [Rep 0 3 HEXDIG, Ch 58 58,
        h16_colon, ls32, Ch 32 32], [Rep 0 3 HEXDIG, Ch 58 58, ls32, Ch 32 32], [Rep 0 3 HEXDIG,
        Cat (Ch 58 58) h16, Ch 32 32], [Cat (Ch 46 46) (Cat dec_octet (Cat (Ch 46 46) (Cat
        dec_octet (Cat (Ch 46 46) dec_octet)))), Ch 32 32], [Rep 0 3 HEXDIG, Ch 32 32]], [[Rep 0 3
        HEXDIG, Ch 58 58, Rep 2 2 h16_colon, ls32, ha_to_port], [Rep 0 3 HEXDIG, Ch 58 58,
        h16_colon, ls32, ha_to_port], [Rep 0 3 HEXDIG, Ch 58 58, ls32, ha_to_port], [Rep 0 3
        HEXDIG, Cat (Ch 58 58) h16, ha_to_port], [Cat (Ch 46 46) (Cat dec_octet (Cat (Ch 46 46)
        (Cat dec_octet (Cat (Ch 46 46) dec_octet)))), ha_to_port], [Rep 0 3 HEXDIG, ha_to_port]],
        [[Rep 0 3 HEXDIG, Ch 58 58, Rep 2 2 h16_colon, ls32, ha_to_end], [Rep 0 3 HEXDIG, Ch 58
        58, h16_colon, ls32, ha_to_end], [Rep 0 3 HEXDIG, Ch 58 58, ls32, ha_to_end], [Rep 0 3
        HEXDIG, Cat (Ch 58 58) h16, ha_to_end], [Cat (Ch 46 46) (Cat dec_octet (Cat (Ch 46 46)
        (Cat dec_octet (Cat (Ch 46 46) dec_octet)))), ha_to_end], [Rep 0 3 HEXDIG, ha_to_end]],
        [], [[Rep 0 3 HEXDIG, Ch 58 58, Rep 2 2 h16_colon, ls32, ha_address2], [Rep 0 3 HEXDIG, Ch
        58 58, h16_colon, ls32, ha_address2], [Rep 0 3 HEXDIG, Ch 58 58, ls32, ha_address2], [Rep
        0 3 HEXDIG, Cat (Ch 58 58) h16, ha_address2], [Cat (Ch 46 46) (Cat dec_octet (Cat (Ch 46
        46) (Cat dec_octet (Cat (Ch 46 46) dec_octet)))), ha_address2], [Rep 0 3 HEXDIG,
        ha_address2]]]])
      else
      if s = 326 then ([-128, 32, 33, 48, 58, 59, 65, 71, 97, 103], [[[], [[Rep 0 2 HEXDIG, Ch 58
        58, Rep 2 2 h16_colon, ls32, Ch 32 32], [Rep 0 2 HEXDIG, Ch 58 58, h16_colon, ls32, Ch 32
        32], [Rep 0 2 HEXDIG, Ch 58 58, ls32, Ch 32 32], [Rep 0 2 HEXDIG, Cat (Ch 58 58) h16, Ch
        32 32], [Rep 0 2 HEXDIG, Ch 32 32]], [[Rep 0 2 HEXDIG, Ch 58 58, Rep 2 2 h16_colon, ls32,
        ha_to_port], [Rep 0 2 HEXDIG, Ch 58 58, h16_colon, ls32, ha_to_port], [Rep 0 2 HEXDIG, Ch
        58 58, ls32, ha_to_port], [Rep 0 2 HEXDIG, Cat (Ch 58 58) h16, ha_to_port], [Rep 0 2
        HEXDIG, ha_to_port]], [[Rep 0 2 HEXDIG, Ch 58 58, Rep 2 2 h16_colon, ls32, ha_to_end],
        [Rep 0 2 HEXDIG, Ch 58 58, h16_colon, ls32, ha_to_end], [Rep 0 2 HEXDIG, Ch 58 58, ls32,
        ha_to_end], [Rep 0 2 HEXDIG, Cat (Ch 58 58) h16, ha_to_end], [Rep 0 2 HEXDIG, ha_to_end]],
        [], [[Rep 0 2 HEXDIG, Ch 58 58, Rep 2 2 h16_colon, ls32, ha_address2], [Rep 0 2 HEXDIG, Ch
        58 58, h16_colon, ls32, ha_address2], [Rep 0 2 HEXDIG, Ch 58 58, ls32, ha_address2], [Rep
        0 2 HEXDIG, Cat (Ch 58 58) h16, ha_address2], [Rep 0 2 HEXDIG, ha_address2]]]])
      else
      if s = 327 then ([-128, 32, 33, 48, 58, 59, 65, 71, 97, 103], [[[], [[Rep 0 1 HEXDIG, Ch 58
        58, Rep 2 2 h16_colon, ls32, Ch 32 32], [Rep 0 1 HEXDIG, Ch 58 58, h16_colon, ls32, Ch 32
        32], [Rep 0 1 HEXDIG, Ch 58 58, ls32, Ch 32 32], [Rep 0 1 HEXDIG, Cat (Ch 58 58) h16, Ch
        32 32], [Rep 0 1 HEXDIG, Ch 32 32]], [[Rep 0 1 HEXDIG, Ch 58 58, Rep 2 2 h16_colon, ls32,
        ha_to_port], [Rep 0 1 HEXDIG, Ch 58 58, h16_colon, ls32, ha_to_port], [Rep 0 1 HEXDIG, Ch
        58 58, ls32, ha_to_port], [Rep 0 1 HEXDIG, Cat (Ch 58 58) h16, ha_to_port], [Rep 0 1
        HEXDIG, ha_to_port]], [[Rep 0 1 HEXDIG, Ch 58 58, Rep 2 2 h16_colon, ls32, ha_to_end],
        [Rep 0 1 HEXDIG, Ch 58 58, h16_colon, ls32, ha_to_end], [Rep 0 1 HEXDIG, Ch 58 58, ls32,
        ha_to_end], [Rep 0 1 HEXDIG, Cat (Ch 58 58) h16, ha_to_end], [Rep 0 1 HEXDIG, ha_to_end]],
        [], [[Rep 0 1 HEXDIG, Ch 58 58, Rep 2 2 h16_colon, ls32, ha_address2], [Rep 0 1 HEXDIG, Ch
        58 58, h16_colon, ls32, ha_address2], [Rep 0 1 HEXDIG, Ch 58 58, ls32, ha_address2], [Rep
        0 1 HEXDIG, Cat (Ch 58 58) h16, ha_address2], [Rep 0 1 HEXDIG, ha_address2]]]])
      else
      ([-128, 32, 33, 58, 59], [[[], [[Ch 58 58, Rep 2 2 h16_colon, ls32, Ch 32 32], [Ch 58 58,
        h16_colon, ls32, Ch 32 32], [Ch 58 58, ls32, Ch 32 32], [Cat (Ch 58 58) h16, Ch 32 32],
        [Ch 32 32]], [[Ch 58 58, Rep 2 2 h16_colon, ls32, ha_to_port], [Ch 58 58, h16_colon, ls32,
        ha_to_port], [Ch 58 58, ls32, ha_to_port], [Cat (Ch 58 58) h16, ha_to_port],
        [ha_to_port]], [[Ch 58 58, Rep 2 2 h16_colon, ls32, ha_to_end], [Ch 58 58, h16_colon,
        ls32, ha_to_end], [Ch 58 58, ls32, ha_to_end], [Cat (Ch 58 58) h16, ha_to_end],
        [ha_to_end]], [], [[Ch 58 58, Rep 2 2 h16_colon, ls32, ha_address2], [Ch 58 58, h16_colon,
        ls32, ha_address2], [Ch 58 58, ls32, ha_address2], [Cat (Ch 58 58) h16, ha_address2],
        [ha_address2]]]]))"

definition ha_expects_42 :: certificate where
  "ha_expects_42 s =
     (if s = 329 then ([-128, 48, 49, 50, 51, 58, 65, 71, 97, 103], [[[], [[Rep 2 2 h16_colon,
        ls32, Ch 32 32], [h16_colon, ls32, Ch 32 32], [ls32, Ch 32 32], [h16, Ch 32 32]], [[Rep 2
        2 h16_colon, ls32, ha_to_port], [h16_colon, ls32, ha_to_port], [ls32, ha_to_port], [h16,
        ha_to_port]], [[Rep 2 2 h16_colon, ls32, ha_to_end], [h16_colon, ls32, ha_to_end], [ls32,
        ha_to_end], [h16, ha_to_end]], [], [[Rep 2 2 h16_colon, ls32, ha_address2], [h16_colon,
        ls32, ha_address2], [ls32, ha_address2], [h16, ha_address2]]]])
      else
      if s = 330 then ([-128, 32, 33, 46, 47, 48, 58, 59, 65, 71, 97, 103], [[[], [[Rep 0 3
        HEXDIG, Ch 58 58, Rep 2 2 h16_colon, ls32, Ch 32 32], [Rep 0 3 HEXDIG, Ch 58 58,
        h16_colon, ls32, Ch 32 32], [Rep 0 3 HEXDIG, Ch 58 58, ls32, Ch 32 32], [Rep 0 3 HEXDIG,
        Cat (Ch 58 58) h16, Ch 32 32], [Cat (Ch 46 46) (Cat dec_octet (Cat (Ch 46 46) (Cat
        dec_octet (Cat (Ch 46 46) dec_octet)))), Ch 32 32], [DIGIT, Cat (Ch 46 46) (Cat dec_octet
        (Cat (Ch 46 46) (Cat dec_octet (Cat (Ch 46 46) dec_octet)))), Ch 32 32], [Rep 2 2 DIGIT,
        Cat (Ch 46 46) (Cat dec_octet (Cat (Ch 46 46) (Cat dec_octet (Cat (Ch 46 46)
        dec_octet)))), Ch 32 32], [Rep 0 3 HEXDIG, Ch 32 32]], [[Rep 0 3 HEXDIG, Ch 58 58, Rep 2 2
        h16_colon, ls32, ha_to_port], [Rep 0 3 HEXDIG, Ch 58 58, h16_colon, ls32, ha_to_port],
        [Rep 0 3 HEXDIG, Ch 58 58, ls32, ha_to_port], [Rep 0 3 HEXDIG, Cat (Ch 58 58) h16,
        ha_to_port], [Cat (Ch 46 46) (Cat dec_octet (Cat (Ch 46 46) (Cat dec_octet (Cat (Ch 46 46)
        dec_octet)))), ha_to_port], [DIGIT, Cat (Ch 46 46) (Cat dec_octet (Cat (Ch 46 46) (Cat
        dec_octet (Cat (Ch 46 46) dec_octet)))), ha_to_port], [Rep 2 2 DIGIT, Cat (Ch 46 46) (Cat
        dec_octet (Cat (Ch 46 46) (Cat dec_octet (Cat (Ch 46 46) dec_octet)))), ha_to_port], [Rep
        0 3 HEXDIG, ha_to_port]], [[Rep 0 3 HEXDIG, Ch 58 58, Rep 2 2 h16_colon, ls32, ha_to_end],
        [Rep 0 3 HEXDIG, Ch 58 58, h16_colon, ls32, ha_to_end], [Rep 0 3 HEXDIG, Ch 58 58, ls32,
        ha_to_end], [Rep 0 3 HEXDIG, Cat (Ch 58 58) h16, ha_to_end], [Cat (Ch 46 46) (Cat
        dec_octet (Cat (Ch 46 46) (Cat dec_octet (Cat (Ch 46 46) dec_octet)))), ha_to_end],
        [DIGIT, Cat (Ch 46 46) (Cat dec_octet (Cat (Ch 46 46) (Cat dec_octet (Cat (Ch 46 46)
        dec_octet)))), ha_to_end], [Rep 2 2 DIGIT, Cat (Ch 46 46) (Cat dec_octet (Cat (Ch 46 46)
        (Cat dec_octet (Cat (Ch 46 46) dec_octet)))), ha_to_end], [Rep 0 3 HEXDIG, ha_to_end]],
        [], [[Rep 0 3 HEXDIG, Ch 58 58, Rep 2 2 h16_colon, ls32, ha_address2], [Rep 0 3 HEXDIG, Ch
        58 58, h16_colon, ls32, ha_address2], [Rep 0 3 HEXDIG, Ch 58 58, ls32, ha_address2], [Rep
        0 3 HEXDIG, Cat (Ch 58 58) h16, ha_address2], [Cat (Ch 46 46) (Cat dec_octet (Cat (Ch 46
        46) (Cat dec_octet (Cat (Ch 46 46) dec_octet)))), ha_address2], [DIGIT, Cat (Ch 46 46)
        (Cat dec_octet (Cat (Ch 46 46) (Cat dec_octet (Cat (Ch 46 46) dec_octet)))), ha_address2],
        [Rep 2 2 DIGIT, Cat (Ch 46 46) (Cat dec_octet (Cat (Ch 46 46) (Cat dec_octet (Cat (Ch 46
        46) dec_octet)))), ha_address2], [Rep 0 3 HEXDIG, ha_address2]]]])
      else
      if s = 331 then ([-128, 32, 33, 46, 47, 48, 58, 59, 65, 71, 97, 103], [[[], [[Rep 0 2
        HEXDIG, Ch 58 58, Rep 2 2 h16_colon, ls32, Ch 32 32], [Rep 0 2 HEXDIG, Ch 58 58,
        h16_colon, ls32, Ch 32 32], [Rep 0 2 HEXDIG, Ch 58 58, ls32, Ch 32 32], [Rep 0 2 HEXDIG,
        Cat (Ch 58 58) h16, Ch 32 32], [Cat (Ch 46 46) (Cat dec_octet (Cat (Ch 46 46) (Cat
        dec_octet (Cat (Ch 46 46) dec_octet)))), Ch 32 32], [DIGIT, Cat (Ch 46 46) (Cat dec_octet
        (Cat (Ch 46 46) (Cat dec_octet (Cat (Ch 46 46) dec_octet)))), Ch 32 32], [Rep 0 2 HEXDIG,
        Ch 32 32]], [[Rep 0 2 HEXDIG, Ch 58 58, Rep 2 2 h16_colon, ls32, ha_to_port], [Rep 0 2
        HEXDIG, Ch 58 58, h16_colon, ls32, ha_to_port], [Rep 0 2 HEXDIG, Ch 58 58, ls32,
        ha_to_port], [Rep 0 2 HEXDIG, Cat (Ch 58 58) h16, ha_to_port], [Cat (Ch 46 46) (Cat
        dec_octet (Cat (Ch 46 46) (Cat dec_octet (Cat (Ch 46 46) dec_octet)))), ha_to_port],
        [DIGIT, Cat (Ch 46 46) (Cat dec_octet (Cat (Ch 46 46) (Cat dec_octet (Cat (Ch 46 46)
        dec_octet)))), ha_to_port], [Rep 0 2 HEXDIG, ha_to_port]], [[Rep 0 2 HEXDIG, Ch 58 58, Rep
        2 2 h16_colon, ls32, ha_to_end], [Rep 0 2 HEXDIG, Ch 58 58, h16_colon, ls32, ha_to_end],
        [Rep 0 2 HEXDIG, Ch 58 58, ls32, ha_to_end], [Rep 0 2 HEXDIG, Cat (Ch 58 58) h16,
        ha_to_end], [Cat (Ch 46 46) (Cat dec_octet (Cat (Ch 46 46) (Cat dec_octet (Cat (Ch 46 46)
        dec_octet)))), ha_to_end], [DIGIT, Cat (Ch 46 46) (Cat dec_octet (Cat (Ch 46 46) (Cat
        dec_octet (Cat (Ch 46 46) dec_octet)))), ha_to_end], [Rep 0 2 HEXDIG, ha_to_end]], [],
        [[Rep 0 2 HEXDIG, Ch 58 58, Rep 2 2 h16_colon, ls32, ha_address2], [Rep 0 2 HEXDIG, Ch 58
        58, h16_colon, ls32, ha_address2], [Rep 0 2 HEXDIG, Ch 58 58, ls32, ha_address2], [Rep 0 2
        HEXDIG, Cat (Ch 58 58) h16, ha_address2], [Cat (Ch 46 46) (Cat dec_octet (Cat (Ch 46 46)
        (Cat dec_octet (Cat (Ch 46 46) dec_octet)))), ha_address2], [DIGIT, Cat (Ch 46 46) (Cat
        dec_octet (Cat (Ch 46 46) (Cat dec_octet (Cat (Ch 46 46) dec_octet)))), ha_address2], [Rep
        0 2 HEXDIG, ha_address2]]]])
      else
      if s = 332 then ([-128, 32, 33, 46, 47, 48, 58, 59, 65, 71, 97, 103], [[[], [[Rep 0 1
        HEXDIG, Ch 58 58, Rep 2 2 h16_colon, ls32, Ch 32 32], [Rep 0 1 HEXDIG, Ch 58 58,
        h16_colon, ls32, Ch 32 32], [Rep 0 1 HEXDIG, Ch 58 58, ls32, Ch 32 32], [Rep 0 1 HEXDIG,
        Cat (Ch 58 58) h16, Ch 32 32], [Cat (Ch 46 46) (Cat dec_octet (Cat (Ch 46 46) (Cat
        dec_octet (Cat (Ch 46 46) dec_octet)))), Ch 32 32], [Rep 0 1 HEXDIG, Ch 32 32]], [[Rep 0 1
        HEXDIG, Ch 58 58, Rep 2 2 h16_colon, ls32, ha_to_port], [Rep 0 1 HEXDIG, Ch 58 58,
        h16_colon, ls32, ha_to_port], [Rep 0 1 HEXDIG, Ch 58 58, ls32, ha_to_port], [Rep 0 1
        HEXDIG, Cat (Ch 58 58) h16, ha_to_port], [Cat (Ch 46 46) (Cat dec_octet (Cat (Ch 46 46)
        (Cat dec_octet (Cat (Ch 46 46) dec_octet)))), ha_to_port], [Rep 0 1 HEXDIG, ha_to_port]],
        [[Rep 0 1 HEXDIG, Ch 58 58, Rep 2 2 h16_colon, ls32, ha_to_end], [Rep 0 1 HEXDIG, Ch 58
        58, h16_colon, ls32, ha_to_end], [Rep 0 1 HEXDIG, Ch 58 58, ls32, ha_to_end], [Rep 0 1
        HEXDIG, Cat (Ch 58 58) h16, ha_to_end], [Cat (Ch 46 46) (Cat dec_octet (Cat (Ch 46 46)
        (Cat dec_octet (Cat (Ch 46 46) dec_octet)))), ha_to_end], [Rep 0 1 HEXDIG, ha_to_end]],
        [], [[Rep 0 1 HEXDIG, Ch 58 58, Rep 2 2 h16_colon, ls32, ha_address2], [Rep 0 1 HEXDIG, Ch
        58 58, h16_colon, ls32, ha_address2], [Rep 0 1 HEXDIG, Ch 58 58, ls32, ha_address2], [Rep
        0 1 HEXDIG, Cat (Ch 58 58) h16, ha_address2], [Cat (Ch 46 46) (Cat dec_octet (Cat (Ch 46
        46) (Cat dec_octet (Cat (Ch 46 46) dec_octet)))), ha_address2], [Rep 0 1 HEXDIG,
        ha_address2]]]])
      else
      if s = 333 then ([-128, 32, 33, 46, 47, 48, 53, 54, 58, 59, 65, 71, 97, 103], [[[], [[Rep 0
        3 HEXDIG, Ch 58 58, Rep 2 2 h16_colon, ls32, Ch 32 32], [Rep 0 3 HEXDIG, Ch 58 58,
        h16_colon, ls32, Ch 32 32], [Rep 0 3 HEXDIG, Ch 58 58, ls32, Ch 32 32], [Rep 0 3 HEXDIG,
        Cat (Ch 58 58) h16, Ch 32 32], [Cat (Ch 46 46) (Cat dec_octet (Cat (Ch 46 46) (Cat
        dec_octet (Cat (Ch 46 46) dec_octet)))), Ch 32 32], [DIGIT, Cat (Ch 46 46) (Cat dec_octet
        (Cat (Ch 46 46) (Cat dec_octet (Cat (Ch 46 46) dec_octet)))), Ch 32 32], [Cat (Ch 48 52)
        DIGIT, Cat (Ch 46 46) (Cat dec_octet (Cat (Ch 46 46) (Cat dec_octet (Cat (Ch 46 46)
        dec_octet)))), Ch 32 32], [Cat (Ch 53 53) (Ch 48 53), Cat (Ch 46 46) (Cat dec_octet (Cat
        (Ch 46 46) (Cat dec_octet (Cat (Ch 46 46) dec_octet)))), Ch 32 32], [Rep 0 3 HEXDIG, Ch 32
        32]], [[Rep 0 3 HEXDIG, Ch 58 58, Rep 2 2 h16_colon, ls32, ha_to_port], [Rep 0 3 HEXDIG,
        Ch 58 58, h16_colon, ls32, ha_to_port], [Rep 0 3 HEXDIG, Ch 58 58, ls32, ha_to_port], [Rep
        0 3 HEXDIG, Cat (Ch 58 58) h16, ha_to_port], [Cat (Ch 46 46) (Cat dec_octet (Cat (Ch 46
        46) (Cat dec_octet (Cat (Ch 46 46) dec_octet)))), ha_to_port], [DIGIT, Cat (Ch 46 46) (Cat
        dec_octet (Cat (Ch 46 46) (Cat dec_octet (Cat (Ch 46 46) dec_octet)))), ha_to_port], [Cat
        (Ch 48 52) DIGIT, Cat (Ch 46 46) (Cat dec_octet (Cat (Ch 46 46) (Cat dec_octet (Cat (Ch 46
        46) dec_octet)))), ha_to_port], [Cat (Ch 53 53) (Ch 48 53), Cat (Ch 46 46) (Cat dec_octet
        (Cat (Ch 46 46) (Cat dec_octet (Cat (Ch 46 46) dec_octet)))), ha_to_port], [Rep 0 3
        HEXDIG, ha_to_port]], [[Rep 0 3 HEXDIG, Ch 58 58, Rep 2 2 h16_colon, ls32, ha_to_end],
        [Rep 0 3 HEXDIG, Ch 58 58, h16_colon, ls32, ha_to_end], [Rep 0 3 HEXDIG, Ch 58 58, ls32,
        ha_to_end], [Rep 0 3 HEXDIG, Cat (Ch 58 58) h16, ha_to_end], [Cat (Ch 46 46) (Cat
        dec_octet (Cat (Ch 46 46) (Cat dec_octet (Cat (Ch 46 46) dec_octet)))), ha_to_end],
        [DIGIT, Cat (Ch 46 46) (Cat dec_octet (Cat (Ch 46 46) (Cat dec_octet (Cat (Ch 46 46)
        dec_octet)))), ha_to_end], [Cat (Ch 48 52) DIGIT, Cat (Ch 46 46) (Cat dec_octet (Cat (Ch
        46 46) (Cat dec_octet (Cat (Ch 46 46) dec_octet)))), ha_to_end], [Cat (Ch 53 53) (Ch 48
        53), Cat (Ch 46 46) (Cat dec_octet (Cat (Ch 46 46) (Cat dec_octet (Cat (Ch 46 46)
        dec_octet)))), ha_to_end], [Rep 0 3 HEXDIG, ha_to_end]], [], [[Rep 0 3 HEXDIG, Ch 58 58,
        Rep 2 2 h16_colon, ls32, ha_address2], [Rep 0 3 HEXDIG, Ch 58 58, h16_colon, ls32,
        ha_address2], [Rep 0 3 HEXDIG, Ch 58 58, ls32, ha_address2], [Rep 0 3 HEXDIG, Cat (Ch 58
        58) h16, ha_address2], [Cat (Ch 46 46) (Cat dec_octet (Cat (Ch 46 46) (Cat dec_octet (Cat
        (Ch 46 46) dec_octet)))), ha_address2], [DIGIT, Cat (Ch 46 46) (Cat dec_octet (Cat (Ch 46
        46) (Cat dec_octet (Cat (Ch 46 46) dec_octet)))), ha_address2], [Cat (Ch 48 52) DIGIT, Cat
        (Ch 46 46) (Cat dec_octet (Cat (Ch 46 46) (Cat dec_octet (Cat (Ch 46 46) dec_octet)))),
        ha_address2], [Cat (Ch 53 53) (Ch 48 53), Cat (Ch 46 46) (Cat dec_octet (Cat (Ch 46 46)
        (Cat dec_octet (Cat (Ch 46 46) dec_octet)))), ha_address2], [Rep 0 3 HEXDIG,
        ha_address2]]]])
      else
      if s = 334 then ([-128, 32, 33, 46, 47, 48, 54, 58, 59, 65, 71, 97, 103], [[[], [[Rep 0 2
        HEXDIG, Ch 58 58, Rep 2 2 h16_colon, ls32, Ch 32 32], [Rep 0 2 HEXDIG, Ch 58 58,
        h16_colon, ls32, Ch 32 32], [Rep 0 2 HEXDIG, Ch 58 58, ls32, Ch 32 32], [Rep 0 2 HEXDIG,
        Cat (Ch 58 58) h16, Ch 32 32], [Cat (Ch 46 46) (Cat dec_octet (Cat (Ch 46 46) (Cat
        dec_octet (Cat (Ch 46 46) dec_octet)))), Ch 32 32], [Ch 48 53, Cat (Ch 46 46) (Cat
        dec_octet (Cat (Ch 46 46) (Cat dec_octet (Cat (Ch 46 46) dec_octet)))), Ch 32 32], [Rep 0
        2 HEXDIG, Ch 32 32]], [[Rep 0 2 HEXDIG, Ch 58 58, Rep 2 2 h16_colon, ls32, ha_to_port],
        [Rep 0 2 HEXDIG, Ch 58 58, h16_colon, ls32, ha_to_port], [Rep 0 2 HEXDIG, Ch 58 58, ls32,
        ha_to_port], [Rep 0 2 HEXDIG, Cat (Ch 58 58) h16, ha_to_port], [Cat (Ch 46 46) (Cat
        dec_octet (Cat (Ch 46 46) (Cat dec_octet (Cat (Ch 46 46) dec_octet)))), ha_to_port], [Ch
        48 53, Cat (Ch 46 46) (Cat dec_octet (Cat (Ch 46 46) (Cat dec_octet (Cat (Ch 46 46)
        dec_octet)))), ha_to_port], [Rep 0 2 HEXDIG, ha_to_port]], [[Rep 0 2 HEXDIG, Ch 58 58, Rep
        2 2 h16_colon, ls32, ha_to_end], [Rep 0 2 HEXDIG, Ch 58 58, h16_colon, ls32, ha_to_end],
        [Rep 0 2 HEXDIG, Ch 58 58, ls32, ha_to_end], [Rep 0 2 HEXDIG, Cat (Ch 58 58) h16,
        ha_to_end], [Cat (Ch 46 46) (Cat dec_octet (Cat (Ch 46 46) (Cat dec_octet (Cat (Ch 46 46)
        dec_octet)))), ha_to_end], [Ch 48 53, Cat (Ch 46 46) (Cat dec_octet (Cat (Ch 46 46) (Cat
        dec_octet (Cat (Ch 46 46) dec_octet)))), ha_to_end], [Rep 0 2 HEXDIG, ha_to_end]], [],
        [[Rep 0 2 HEXDIG, Ch 58 58, Rep 2 2 h16_colon, ls32, ha_address2], [Rep 0 2 HEXDIG, Ch 58
        58, h16_colon, ls32, ha_address2], [Rep 0 2 HEXDIG, Ch 58 58, ls32, ha_address2], [Rep 0 2
        HEXDIG, Cat (Ch 58 58) h16, ha_address2], [Cat (Ch 46 46) (Cat dec_octet (Cat (Ch 46 46)
        (Cat dec_octet (Cat (Ch 46 46) dec_octet)))), ha_address2], [Ch 48 53, Cat (Ch 46 46) (Cat
        dec_octet (Cat (Ch 46 46) (Cat dec_octet (Cat (Ch 46 46) dec_octet)))), ha_address2], [Rep
        0 2 HEXDIG, ha_address2]]]])
      else
      if s = 335 then ([-128, 32, 33, 46, 47, 48, 58, 59, 65, 71, 97, 103], [[[], [[Rep 0 2
        HEXDIG, Ch 58 58, Rep 2 2 h16_colon, ls32, Ch 32 32], [Rep 0 2 HEXDIG, Ch 58 58,
        h16_colon, ls32, Ch 32 32], [Rep 0 2 HEXDIG, Ch 58 58, ls32, Ch 32 32], [Rep 0 2 HEXDIG,
        Cat (Ch 58 58) h16, Ch 32 32], [Cat (Ch 46 46) (Cat dec_octet (Cat (Ch 46 46) (Cat
        dec_octet (Cat (Ch 46 46) dec_octet)))), Ch 32 32], [Rep 0 2 HEXDIG, Ch 32 32]], [[Rep 0 2
        HEXDIG, Ch 58 58, Rep 2 2 h16_colon, ls32, ha_to_port], [Rep 0 2 HEXDIG, Ch 58 58,
        h16_colon, ls32, ha_to_port], [Rep 0 2 HEXDIG, Ch 58 58, ls32, ha_to_port], [Rep 0 2
        HEXDIG, Cat (Ch 58 58) h16, ha_to_port], [Cat (Ch 46 46) (Cat dec_octet (Cat (Ch 46 46)
        (Cat dec_octet (Cat (Ch 46 46) dec_octet)))), ha_to_port], [Rep 0 2 HEXDIG, ha_to_port]],
        [[Rep 0 2 HEXDIG, Ch 58 58, Rep 2 2 h16_colon, ls32, ha_to_end], [Rep 0 2 HEXDIG, Ch 58
        58, h16_colon, ls32, ha_to_end], [Rep 0 2 HEXDIG, Ch 58 58, ls32, ha_to_end], [Rep 0 2
        HEXDIG, Cat (Ch 58 58) h16, ha_to_end], [Cat (Ch 46 46) (Cat dec_octet (Cat (Ch 46 46)
        (Cat dec_octet (Cat (Ch 46 46) dec_octet)))), ha_to_end], [Rep 0 2 HEXDIG, ha_to_end]],
        [], [[Rep 0 2 HEXDIG, Ch 58 58, Rep 2 2 h16_colon, ls32, ha_address2], [Rep 0 2 HEXDIG, Ch
        58 58, h16_colon, ls32, ha_address2], [Rep 0 2 HEXDIG, Ch 58 58, ls32, ha_address2], [Rep
        0 2 HEXDIG, Cat (Ch 58 58) h16, ha_address2], [Cat (Ch 46 46) (Cat dec_octet (Cat (Ch 46
        46) (Cat dec_octet (Cat (Ch 46 46) dec_octet)))), ha_address2], [Rep 0 2 HEXDIG,
        ha_address2]]]])
      else
      ([-128, 32, 33, 46, 47, 48, 58, 59, 65, 71, 97, 103], [[[], [[Rep 0 3 HEXDIG, Ch 58 58, Rep
        2 2 h16_colon, ls32, Ch 32 32], [Rep 0 3 HEXDIG, Ch 58 58, h16_colon, ls32, Ch 32 32],
        [Rep 0 3 HEXDIG, Ch 58 58, ls32, Ch 32 32], [Rep 0 3 HEXDIG, Cat (Ch 58 58) h16, Ch 32
        32], [Cat (Ch 46 46) (Cat dec_octet (Cat (Ch 46 46) (Cat dec_octet (Cat (Ch 46 46)
        dec_octet)))), Ch 32 32], [DIGIT, Cat (Ch 46 46) (Cat dec_octet (Cat (Ch 46 46) (Cat
        dec_octet (Cat (Ch 46 46) dec_octet)))), Ch 32 32], [Rep 0 3 HEXDIG, Ch 32 32]], [[Rep 0 3
        HEXDIG, Ch 58 58, Rep 2 2 h16_colon, ls32, ha_to_port], [Rep 0 3 HEXDIG, Ch 58 58,
        h16_colon, ls32, ha_to_port], [Rep 0 3 HEXDIG, Ch 58 58, ls32, ha_to_port], [Rep 0 3
        HEXDIG, Cat (Ch 58 58) h16, ha_to_port], [Cat (Ch 46 46) (Cat dec_octet (Cat (Ch 46 46)
        (Cat dec_octet (Cat (Ch 46 46) dec_octet)))), ha_to_port], [DIGIT, Cat (Ch 46 46) (Cat
        dec_octet (Cat (Ch 46 46) (Cat dec_octet (Cat (Ch 46 46) dec_octet)))), ha_to_port], [Rep
        0 3 HEXDIG, ha_to_port]], [[Rep 0 3 HEXDIG, Ch 58 58, Rep 2 2 h16_colon, ls32, ha_to_end],
        [Rep 0 3 HEXDIG, Ch 58 58, h16_colon, ls32, ha_to_end], [Rep 0 3 HEXDIG, Ch 58 58, ls32,
        ha_to_end], [Rep 0 3 HEXDIG, Cat (Ch 58 58) h16, ha_to_end], [Cat (Ch 46 46) (Cat
        dec_octet (Cat (Ch 46 46) (Cat dec_octet (Cat (Ch 46 46) dec_octet)))), ha_to_end],
        [DIGIT, Cat (Ch 46 46) (Cat dec_octet (Cat (Ch 46 46) (Cat dec_octet (Cat (Ch 46 46)
        dec_octet)))), ha_to_end], [Rep 0 3 HEXDIG, ha_to_end]], [], [[Rep 0 3 HEXDIG, Ch 58 58,
        Rep 2 2 h16_colon, ls32, ha_address2], [Rep 0 3 HEXDIG, Ch 58 58, h16_colon, ls32,
        ha_address2], [Rep 0 3 HEXDIG, Ch 58 58, ls32, ha_address2], [Rep 0 3 HEXDIG, Cat (Ch 58
        58) h16, ha_address2], [Cat (Ch 46 46) (Cat dec_octet (Cat (Ch 46 46) (Cat dec_octet (Cat
        (Ch 46 46) dec_octet)))), ha_address2], [DIGIT, Cat (Ch 46 46) (Cat dec_octet (Cat (Ch 46
        46) (Cat dec_octet (Cat (Ch 46 46) dec_octet)))), ha_address2], [Rep 0 3 HEXDIG,
        ha_address2]]]]))"

definition ha_expects_43 :: certificate where
  "ha_expects_43 s =
     (if s = 337 then ([-128, 32, 33, 48, 58, 59, 65, 71, 97, 103], [[[], [[Rep 0 3 HEXDIG, Ch 58
        58, Rep 2 2 h16_colon, ls32, Ch 32 32], [Rep 0 3 HEXDIG, Ch 58 58, h16_colon, ls32, Ch 32
        32], [Rep 0 3 HEXDIG, Ch 58 58, ls32, Ch 32 32], [Rep 0 3 HEXDIG, Cat (Ch 58 58) h16, Ch
        32 32], [Rep 0 3 HEXDIG, Ch 32 32]], [[Rep 0 3 HEXDIG, Ch 58 58, Rep 2 2 h16_colon, ls32,
        ha_to_port], [Rep 0 3 HEXDIG, Ch 58 58, h16_colon, ls32, ha_to_port], [Rep 0 3 HEXDIG, Ch
        58 58, ls32, ha_to_port], [Rep 0 3 HEXDIG, Cat (Ch 58 58) h16, ha_to_port], [Rep 0 3
        HEXDIG, ha_to_port]], [[Rep 0 3 HEXDIG, Ch 58 58, Rep 2 2 h16_colon, ls32, ha_to_end],
        [Rep 0 3 HEXDIG, Ch 58 58, h16_colon, ls32, ha_to_end], [Rep 0 3 HEXDIG, Ch 58 58, ls32,
        ha_to_end], [Rep 0 3 HEXDIG, Cat (Ch 58 58) h16, ha_to_end], [Rep 0 3 HEXDIG, ha_to_end]],
        [], [[Rep 0 3 HEXDIG, Ch 58 58, Rep 2 2 h16_colon, ls32, ha_address2], [Rep 0 3 HEXDIG, Ch
        58 58, h16_colon, ls32, ha_address2], [Rep 0 3 HEXDIG, Ch 58 58, ls32, ha_address2], [Rep
        0 3 HEXDIG, Cat (Ch 58 58) h16, ha_address2], [Rep 0 3 HEXDIG, ha_address2]]]])
      else
      if s = 338 then ([-128, 32, 33, 48, 49, 50, 51, 58, 65, 71, 97, 103], [[[], [[Cat (Rep 4 4
        h16_colon) ls32, Ch 32 32], [Cat (Rep 3 3 h16_colon) ls32, Ch 32 32], [Cat (Rep 2 2
        h16_colon) ls32, Ch 32 32], [Cat h16_colon ls32, Ch 32 32], [ls32, Ch 32 32], [h16, Ch 32
        32], [Ch 32 32]], [[Cat (Rep 4 4 h16_colon) ls32, ha_to_port], [Cat (Rep 3 3 h16_colon)
        ls32, ha_to_port], [Cat (Rep 2 2 h16_colon) ls32, ha_to_port], [Cat h16_colon ls32,
        ha_to_port], [ls32, ha_to_port], [h16, ha_to_port], [ha_to_port]], [[Cat (Rep 4 4
        h16_colon) ls32, ha_to_end], [Cat (Rep 3 3 h16_colon) ls32, ha_to_end], [Cat (Rep 2 2
        h16_colon) ls32, ha_to_end], [Cat h16_colon ls32, ha_to_end], [ls32, ha_to_end], [h16,
        ha_to_end], [ha_to_end]], [], [[Cat (Rep 4 4 h16_colon) ls32, ha_address2], [Cat (Rep 3 3
        h16_colon) ls32, ha_address2], [Cat (Rep 2 2 h16_colon) ls32, ha_address2], [Cat h16_colon
        ls32, ha_address2], [ls32, ha_address2], [h16, ha_address2], [ha_address2]]]])
      else
      if s = 339 then ([-128, 32, 33, 46, 47, 48, 58, 59, 65, 71, 97, 103], [[[], [[Rep 0 3
        HEXDIG, Ch 58 58, Rep 3 3 h16_colon, ls32, Ch 32 32], [Rep 0 3 HEXDIG, Ch 58 58, Rep 2 2
        h16_colon, ls32, Ch 32 32], [Rep 0 3 HEXDIG, Ch 58 58, h16_colon, ls32, Ch 32 32], [Rep 0
        3 HEXDIG, Ch 58 58, ls32, Ch 32 32], [Rep 0 3 HEXDIG, Cat (Ch 58 58) h16, Ch 32 32], [Cat
        (Ch 46 46) (Cat dec_octet (Cat (Ch 46 46) (Cat dec_octet (Cat (Ch 46 46) dec_octet)))), Ch
        32 32], [Rep 0 3 HEXDIG, Ch 32 32]], [[Rep 0 3 HEXDIG, Ch 58 58, Rep 3 3 h16_colon, ls32,
        ha_to_port], [Rep 0 3 HEXDIG, Ch 58 58, Rep 2 2 h16_colon, ls32, ha_to_port], [Rep 0 3
        HEXDIG, Ch 58 58, h16_colon, ls32, ha_to_port], [Rep 0 3 HEXDIG, Ch 58 58, ls32,
        ha_to_port], [Rep 0 3 HEXDIG, Cat (Ch 58 58) h16, ha_to_port], [Cat (Ch 46 46) (Cat
        dec_octet (Cat (Ch 46 46) (Cat dec_octet (Cat (Ch 46 46) dec_octet)))), ha_to_port], [Rep
        0 3 HEXDIG, ha_to_port]], [[Rep 0 3 HEXDIG, Ch 58 58, Rep 3 3 h16_colon, ls32, ha_to_end],
        [Rep 0 3 HEXDIG, Ch 58 58, Rep 2 2 h16_colon, ls32, ha_to_end], [Rep 0 3 HEXDIG, Ch 58 58,
        h16_colon, ls32, ha_to_end], [Rep 0 3 HEXDIG, Ch 58 58, ls32, ha_to_end], [Rep 0 3 HEXDIG,
        Cat (Ch 58 58) h16, ha_to_end], [Cat (Ch 46 46) (Cat dec_octet (Cat (Ch 46 46) (Cat
        dec_octet (Cat (Ch 46 46) dec_octet)))), ha_to_end], [Rep 0 3 HEXDIG, ha_to_end]], [],
        [[Rep 0 3 HEXDIG, Ch 58 58, Rep 3 3 h16_colon, ls32, ha_address2], [Rep 0 3 HEXDIG, Ch 58
        58, Rep 2 2 h16_colon, ls32, ha_address2], [Rep 0 3 HEXDIG, Ch 58 58, h16_colon, ls32,
        ha_address2], [Rep 0 3 HEXDIG, Ch 58 58, ls32, ha_address2], [Rep 0 3 HEXDIG, Cat (Ch 58
        58) h16, ha_address2], [Cat (Ch 46 46) (Cat dec_octet (Cat (Ch 46 46) (Cat dec_octet (Cat
        (Ch 46 46) dec_octet)))), ha_address2], [Rep 0 3 HEXDIG, ha_address2]]]])
      else
      if s = 340 then ([-128, 32, 33, 48, 58, 59, 65, 71, 97, 103], [[[], [[Rep 0 2 HEXDIG, Ch 58
        58, Rep 3 3 h16_colon, ls32, Ch 32 32], [Rep 0 2 HEXDIG, Ch 58 58, Rep 2 2 h16_colon,
        ls32, Ch 32 32], [Rep 0 2 HEXDIG, Ch 58 58, h16_colon, ls32, Ch 32 32], [Rep 0 2 HEXDIG,
        Ch 58 58, ls32, Ch 32 32], [Rep 0 2 HEXDIG, Cat (Ch 58 58) h16, Ch 32 32], [Rep 0 2
        HEXDIG, Ch 32 32]], [[Rep 0 2 HEXDIG, Ch 58 58, Rep 3 3 h16_colon, ls32, ha_to_port], [Rep
        0 2 HEXDIG, Ch 58 58, Rep 2 2 h16_colon, ls32, ha_to_port], [Rep 0 2 HEXDIG, Ch 58 58,
        h16_colon, ls32, ha_to_port], [Rep 0 2 HEXDIG, Ch 58 58, ls32, ha_to_port], [Rep 0 2
        HEXDIG, Cat (Ch 58 58) h16, ha_to_port], [Rep 0 2 HEXDIG, ha_to_port]], [[Rep 0 2 HEXDIG,
        Ch 58 58, Rep 3 3 h16_colon, ls32, ha_to_end], [Rep 0 2 HEXDIG, Ch 58 58, Rep 2 2
        h16_colon, ls32, ha_to_end], [Rep 0 2 HEXDIG, Ch 58 58, h16_colon, ls32, ha_to_end], [Rep
        0 2 HEXDIG, Ch 58 58, ls32, ha_to_end], [Rep 0 2 HEXDIG, Cat (Ch 58 58) h16, ha_to_end],
        [Rep 0 2 HEXDIG, ha_to_end]], [], [[Rep 0 2 HEXDIG, Ch 58 58, Rep 3 3 h16_colon, ls32,
        ha_address2], [Rep 0 2 HEXDIG, Ch 58 58, Rep 2 2 h16_colon, ls32, ha_address2], [Rep 0 2
        HEXDIG, Ch 58 58, h16_colon, ls32, ha_address2], [Rep 0 2 HEXDIG, Ch 58 58, ls32,
        ha_address2], [Rep 0 2 HEXDIG, Cat (Ch 58 58) h16, ha_address2], [Rep 0 2 HEXDIG,
        ha_address2]]]])
      else
      if s = 341 then ([-128, 32, 33, 48, 58, 59, 65, 71, 97, 103], [[[], [[Rep 0 1 HEXDIG, Ch 58
        58, Rep 3 3 h16_colon, ls32, Ch 32 32], [Rep 0 1 HEXDIG, Ch 58 58, Rep 2 2 h16_colon,
        ls32, Ch 32 32], [Rep 0 1 HEXDIG, Ch 58 58, h16_colon, ls32, Ch 32 32], [Rep 0 1 HEXDIG,
        Ch 58 58, ls32, Ch 32 32], [Rep 0 1 HEXDIG, Cat (Ch 58 58) h16, Ch 32 32], [Rep 0 1
        HEXDIG, Ch 32 32]], [[Rep 0 1 HEXDIG, Ch 58 58, Rep 3 3 h16_colon, ls32, ha_to_port], [Rep
        0 1 HEXDIG, Ch 58 58, Rep 2 2 h16_colon, ls32, ha_to_port], [Rep 0 1 HEXDIG, Ch 58 58,
        h16_colon, ls32, ha_to_port], [Rep 0 1 HEXDIG, Ch 58 58, ls32, ha_to_port], [Rep 0 1
        HEXDIG, Cat (Ch 58 58) h16, ha_to_port], [Rep 0 1 HEXDIG, ha_to_port]], [[Rep 0 1 HEXDIG,
        Ch 58 58, Rep 3 3 h16_colon, ls32, ha_to_end], [Rep 0 1 HEXDIG, Ch 58 58, Rep 2 2
        h16_colon, ls32, ha_to_end], [Rep 0 1 HEXDIG, Ch 58 58, h16_colon, ls32, ha_to_end], [Rep
        0 1 HEXDIG, Ch 58 58, ls32, ha_to_end], [Rep 0 1 HEXDIG, Cat (Ch 58 58) h16, ha_to_end],
        [Rep 0 1 HEXDIG, ha_to_end]], [], [[Rep 0 1 HEXDIG, Ch 58 58, Rep 3 3 h16_colon, ls32,
        ha_address2], [Rep 0 1 HEXDIG, Ch 58 58, Rep 2 2 h16_colon, ls32, ha_address2], [Rep 0 1
        HEXDIG, Ch 58 58, h16_colon, ls32, ha_address2], [Rep 0 1 HEXDIG, Ch 58 58, ls32,
        ha_address2], [Rep 0 1 HEXDIG, Cat (Ch 58 58) h16, ha_address2], [Rep 0 1 HEXDIG,
        ha_address2]]]])
      else
      if s = 342 then ([-128, 32, 33, 58, 59], [[[], [[Ch 58 58, Rep 3 3 h16_colon, ls32, Ch 32
        32], [Ch 58 58, Rep 2 2 h16_colon, ls32, Ch 32 32], [Ch 58 58, h16_colon, ls32, Ch 32 32],
        [Ch 58 58, ls32, Ch 32 32], [Cat (Ch 58 58) h16, Ch 32 32], [Ch 32 32]], [[Ch 58 58, Rep 3
        3 h16_colon, ls32, ha_to_port], [Ch 58 58, Rep 2 2 h16_colon, ls32, ha_to_port], [Ch 58
        58, h16_colon, ls32, ha_to_port], [Ch 58 58, ls32, ha_to_port], [Cat (Ch 58 58) h16,
        ha_to_port], [ha_to_port]], [[Ch 58 58, Rep 3 3 h16_colon, ls32, ha_to_end], [Ch 58 58,
        Rep 2 2 h16_colon, ls32, ha_to_end], [Ch 58 58, h16_colon, ls32, ha_to_end], [Ch 58 58,
        ls32, ha_to_end], [Cat (Ch 58 58) h16, ha_to_end], [ha_to_end]], [], [[Ch 58 58, Rep 3 3
        h16_colon, ls32, ha_address2], [Ch 58 58, Rep 2 2 h16_colon, ls32, ha_address2], [Ch 58
        58, h16_colon, ls32, ha_address2], [Ch 58 58, ls32, ha_address2], [Cat (Ch 58 58) h16,
        ha_address2], [ha_address2]]]])
      else
      if s = 343 then ([-128, 48, 49, 50, 51, 58, 65, 71, 97, 103], [[[], [[Rep 3 3 h16_colon,
        ls32, Ch 32 32], [Rep 2 2 h16_colon, ls32, Ch 32 32], [h16_colon, ls32, Ch 32 32], [ls32,
        Ch 32 32], [h16, Ch 32 32]], [[Rep 3 3 h16_colon, ls32, ha_to_port], [Rep 2 2 h16_colon,
        ls32, ha_to_port], [h16_colon, ls32, ha_to_port], [ls32, ha_to_port], [h16, ha_to_port]],
        [[Rep 3 3 h16_colon, ls32, ha_to_end], [Rep 2 2 h16_colon, ls32, ha_to_end], [h16_colon,
        ls32, ha_to_end], [ls32, ha_to_end], [h16, ha_to_end]], [], [[Rep 3 3 h16_colon, ls32,
        ha_address2], [Rep 2 2 h16_colon, ls32, ha_address2], [h16_colon, ls32, ha_address2],
        [ls32, ha_address2], [h16, ha_address2]]]])
      else
      ([-128, 32, 33, 46, 47, 48, 58, 59, 65, 71, 97, 103], [[[], [[Rep 0 3 HEXDIG, Ch 58 58, Rep
        3 3 h16_colon, ls32, Ch 32 32], [Rep 0 3 HEXDIG, Ch 58 58, Rep 2 2 h16_colon, ls32, Ch 32
        32], [Rep 0 3 HEXDIG, Ch 58 58, h16_colon, ls32, Ch 32 32], [Rep 0 3 HEXDIG, Ch 58 58,
        ls32, Ch 32 32], [Rep 0 3 HEXDIG, Cat (Ch 58 58) h16, Ch 32 32], [Cat (Ch 46 46) (Cat
        dec_octet (Cat (Ch 46 46) (Cat dec_octet (Cat (Ch 46 46) dec_octet)))), Ch 32 32], [DIGIT,
        Cat (Ch 46 46) (Cat dec_octet (Cat (Ch 46 46) (Cat dec_octet (Cat (Ch 46 46)
        dec_octet)))), Ch 32 32], [Rep 2 2 DIGIT, Cat (Ch 46 46) (Cat dec_octet (Cat (Ch 46 46)
        (Cat dec_octet (Cat (Ch 46 46) dec_octet)))), Ch 32 32], [Rep 0 3 HEXDIG, Ch 32 32]],
        [[Rep 0 3 HEXDIG, Ch 58 58, Rep 3 3 h16_colon, ls32, ha_to_port], [Rep 0 3 HEXDIG, Ch 58
        58, Rep 2 2 h16_colon, ls32, ha_to_port], [Rep 0 3 HEXDIG, Ch 58 58, h16_colon, ls32,
        ha_to_port], [Rep 0 3 HEXDIG, Ch 58 58, ls32, ha_to_port], [Rep 0 3 HEXDIG, Cat (Ch 58 58)
        h16, ha_to_port], [Cat (Ch 46 46) (Cat dec_octet (Cat (Ch 46 46) (Cat dec_octet (Cat (Ch
        46 46) dec_octet)))), ha_to_port], [DIGIT, Cat (Ch 46 46) (Cat dec_octet (Cat (Ch 46 46)
        (Cat dec_octet (Cat (Ch 46 46) dec_octet)))), ha_to_port], [Rep 2 2 DIGIT, Cat (Ch 46 46)
        (Cat dec_octet (Cat (Ch 46 46) (Cat dec_octet (Cat (Ch 46 46) dec_octet)))), ha_to_port],
        [Rep 0 3 HEXDIG, ha_to_port]], [[Rep 0 3 HEXDIG, Ch 58 58, Rep 3 3 h16_colon, ls32,
        ha_to_end], [Rep 0 3 HEXDIG, Ch 58 58, Rep 2 2 h16_colon, ls32, ha_to_end], [Rep 0 3
        HEXDIG, Ch 58 58, h16_colon, ls32, ha_to_end], [Rep 0 3 HEXDIG, Ch 58 58, ls32,
        ha_to_end], [Rep 0 3 HEXDIG, Cat (Ch 58 58) h16, ha_to_end], [Cat (Ch 46 46) (Cat
        dec_octet (Cat (Ch 46 46) (Cat dec_octet (Cat (Ch 46 46) dec_octet)))), ha_to_end],
        [DIGIT, Cat (Ch 46 46) (Cat dec_octet (Cat (Ch 46 46) (Cat dec_octet (Cat (Ch 46 46)
        dec_octet)))), ha_to_end], [Rep 2 2 DIGIT, Cat (Ch 46 46) (Cat dec_octet (Cat (Ch 46 46)
        (Cat dec_octet (Cat (Ch 46 46) dec_octet)))), ha_to_end], [Rep 0 3 HEXDIG, ha_to_end]],
        [], [[Rep 0 3 HEXDIG, Ch 58 58, Rep 3 3 h16_colon, ls32, ha_address2], [Rep 0 3 HEXDIG, Ch
        58 58, Rep 2 2 h16_colon, ls32, ha_address2], [Rep 0 3 HEXDIG, Ch 58 58, h16_colon, ls32,
        ha_address2], [Rep 0 3 HEXDIG, Ch 58 58, ls32, ha_address2], [Rep 0 3 HEXDIG, Cat (Ch 58
        58) h16, ha_address2], [Cat (Ch 46 46) (Cat dec_octet (Cat (Ch 46 46) (Cat dec_octet (Cat
        (Ch 46 46) dec_octet)))), ha_address2], [DIGIT, Cat (Ch 46 46) (Cat dec_octet (Cat (Ch 46
        46) (Cat dec_octet (Cat (Ch 46 46) dec_octet)))), ha_address2], [Rep 2 2 DIGIT, Cat (Ch 46
        46) (Cat dec_octet (Cat (Ch 46 46) (Cat dec_octet (Cat (Ch 46 46) dec_octet)))),
        ha_address2], [Rep 0 3 HEXDIG, ha_address2]]]]))"

definition ha_expects_44 :: certificate where
  "ha_expects_44 s =
     (if s = 345 then ([-128, 32, 33, 46, 47, 48, 58, 59, 65, 71, 97, 103], [[[], [[Rep 0 2
        HEXDIG, Ch 58 58, Rep 3 3 h16_colon, ls32, Ch 32 32], [Rep 0 2 HEXDIG, Ch 58 58, Rep 2 2
        h16_colon, ls32, Ch 32 32], [Rep 0 2 HEXDIG, Ch 58 58, h16_colon, ls32, Ch 32 32], [Rep 0
        2 HEXDIG, Ch 58 58, ls32, Ch 32 32], [Rep 0 2 HEXDIG, Cat (Ch 58 58) h16, Ch 32 32], [Cat
        (Ch 46 46) (Cat dec_octet (Cat (Ch 46 46) (Cat dec_octet (Cat (Ch 46 46) dec_octet)))), Ch
        32 32], [DIGIT, Cat (Ch 46 46) (Cat dec_octet (Cat (Ch 46 46) (Cat dec_octet (Cat (Ch 46
        46) dec_octet)))), Ch 32 32], [Rep 0 2 HEXDIG, Ch 32 32]], [[Rep 0 2 HEXDIG, Ch 58 58, Rep
        3 3 h16_colon, ls32, ha_to_port], [Rep 0 2 HEXDIG, Ch 58 58, Rep 2 2 h16_colon, ls32,
        ha_to_port], [Rep 0 2 HEXDIG, Ch 58 58, h16_colon, ls32, ha_to_port], [Rep 0 2 HEXDIG, Ch
        58 58, ls32, ha_to_port], [Rep 0 2 HEXDIG, Cat (Ch 58 58) h16, ha_to_port], [Cat (Ch 46
        46) (Cat dec_octet (Cat (Ch 46 46) (Cat dec_octet (Cat (Ch 46 46) dec_octet)))),
        ha_to_port], [DIGIT, Cat (Ch 46 46) (Cat dec_octet (Cat (Ch 46 46) (Cat dec_octet (Cat (Ch
        46 46) dec_octet)))), ha_to_port], [Rep 0 2 HEXDIG, ha_to_port]], [[Rep 0 2 HEXDIG, Ch 58
        58, Rep 3 3 h16_colon, ls32, ha_to_end], [Rep 0 2 HEXDIG, Ch 58 58, Rep 2 2 h16_colon,
        ls32, ha_to_end], [Rep 0 2 HEXDIG, Ch 58 58, h16_colon, ls32, ha_to_end], [Rep 0 2 HEXDIG,
        Ch 58 58, ls32, ha_to_end], [Rep 0 2 HEXDIG, Cat (Ch 58 58) h16, ha_to_end], [Cat (Ch 46
        46) (Cat dec_octet (Cat (Ch 46 46) (Cat dec_octet (Cat (Ch 46 46) dec_octet)))),
        ha_to_end], [DIGIT, Cat (Ch 46 46) (Cat dec_octet (Cat (Ch 46 46) (Cat dec_octet (Cat (Ch
        46 46) dec_octet)))), ha_to_end], [Rep 0 2 HEXDIG, ha_to_end]], [], [[Rep 0 2 HEXDIG, Ch
        58 58, Rep 3 3 h16_colon, ls32, ha_address2], [Rep 0 2 HEXDIG, Ch 58 58, Rep 2 2
        h16_colon, ls32, ha_address2], [Rep 0 2 HEXDIG, Ch 58 58, h16_colon, ls32, ha_address2],
        [Rep 0 2 HEXDIG, Ch 58 58, ls32, ha_address2], [Rep 0 2 HEXDIG, Cat (Ch 58 58) h16,
        ha_address2], [Cat (Ch 46 46) (Cat dec_octet (Cat (Ch 46 46) (Cat dec_octet (Cat (Ch 46
        46) dec_octet)))), ha_address2], [DIGIT, Cat (Ch 46 46) (Cat dec_octet (Cat (Ch 46 46)
        (Cat dec_octet (Cat (Ch 46 46) dec_octet)))), ha_address2], [Rep 0 2 HEXDIG,
        ha_address2]]]])
      else
      if s = 346 then ([-128, 32, 33, 46, 47, 48, 58, 59, 65, 71, 97, 103], [[[], [[Rep 0 1
        HEXDIG, Ch 58 58, Rep 3 3 h16_colon, ls32, Ch 32 32], [Rep 0 1 HEXDIG, Ch 58 58, Rep 2 2
        h16_colon, ls32, Ch 32 32], [Rep 0 1 HEXDIG, Ch 58 58, h16_colon, ls32, Ch 32 32], [Rep 0
        1 HEXDIG, Ch 58 58, ls32, Ch 32 32], [Rep 0 1 HEXDIG, Cat (Ch 58 58) h16, Ch 32 32], [Cat
        (Ch 46 46) (Cat dec_octet (Cat (Ch 46 46) (Cat dec_octet (Cat (Ch 46 46) dec_octet)))), Ch
        32 32], [Rep 0 1 HEXDIG, Ch 32 32]], [[Rep 0 1 HEXDIG, Ch 58 58, Rep 3 3 h16_colon, ls32,
        ha_to_port], [Rep 0 1 HEXDIG, Ch 58 58, Rep 2 2 h16_colon, ls32, ha_to_port], [Rep 0 1
        HEXDIG, Ch 58 58, h16_colon, ls32, ha_to_port], [Rep 0 1 HEXDIG, Ch 58 58, ls32,
        ha_to_port], [Rep 0 1 HEXDIG, Cat (Ch 58 58) h16, ha_to_port], [Cat (Ch 46 46) (Cat
        dec_octet (Cat (Ch 46 46) (Cat dec_octet (Cat (Ch 46 46) dec_octet)))), ha_to_port], [Rep
        0 1 HEXDIG, ha_to_port]], [[Rep 0 1 HEXDIG, Ch 58 58, Rep 3 3 h16_colon, ls32, ha_to_end],
        [Rep 0 1 HEXDIG, Ch 58 58, Rep 2 2 h16_colon, ls32, ha_to_end], [Rep 0 1 HEXDIG, Ch 58 58,
        h16_colon, ls32, ha_to_end], [Rep 0 1 HEXDIG, Ch 58 58, ls32, ha_to_end], [Rep 0 1 HEXDIG,
        Cat (Ch 58 58) h16, ha_to_end], [Cat (Ch 46 46) (Cat dec_octet (Cat (Ch 46 46) (Cat
        dec_octet (Cat (Ch 46 46) dec_octet)))), ha_to_end], [Rep 0 1 HEXDIG, ha_to_end]], [],
        [[Rep 0 1 HEXDIG, Ch 58 58, Rep 3 3 h16_colon, ls32, ha_address2], [Rep 0 1 HEXDIG, Ch 58
        58, Rep 2 2 h16_colon, ls32, ha_address2], [Rep 0 1 HEXDIG, Ch 58 58, h16_colon, ls32,
        ha_address2], [Rep 0 1 HEXDIG, Ch 58 58, ls32, ha_address2], [Rep 0 1 HEXDIG, Cat (Ch 58
        58) h16, ha_address2], [Cat (Ch 46 46) (Cat dec_octet (Cat (Ch 46 46) (Cat dec_octet (Cat
        (Ch 46 46) dec_octet)))), ha_address2], [Rep 0 1 HEXDIG, ha_address2]]]])
      else
      if s = 347 then ([-128, 32, 33, 46, 47, 48, 53, 54, 58, 59, 65, 71, 97, 103], [[[], [[Rep 0
        3 HEXDIG, Ch 58 58, Rep 3 3 h16_colon, ls32, Ch 32 32], [Rep 0 3 HEXDIG, Ch 58 58, Rep 2 2
        h16_colon, ls32, Ch 32 32], [Rep 0 3 HEXDIG, Ch 58 58, h16_colon, ls32, Ch 32 32], [Rep 0
        3 HEXDIG, Ch 58 58, ls32, Ch 32 32], [Rep 0 3 HEXDIG, Cat (Ch 58 58) h16, Ch 32 32], [Cat
        (Ch 46 46) (Cat dec_octet (Cat (Ch 46 46) (Cat dec_octet (Cat (Ch 46 46) dec_octet)))), Ch
        32 32], [DIGIT, Cat (Ch 46 46) (Cat dec_octet (Cat (Ch 46 46) (Cat dec_octet (Cat (Ch 46
        46) dec_octet)))), Ch 32 32], [Cat (Ch 48 52) DIGIT, Cat (Ch 46 46) (Cat dec_octet (Cat
        (Ch 46 46) (Cat dec_octet (Cat (Ch 46 46) dec_octet)))), Ch 32 32], [Cat (Ch 53 53) (Ch 48
        53), Cat (Ch 46 46) (Cat dec_octet (Cat (Ch 46 46) (Cat dec_octet (Cat (Ch 46 46)
        dec_octet)))), Ch 32 32], [Rep 0 3 HEXDIG, Ch 32 32]], [[Rep 0 3 HEXDIG, Ch 58 58, Rep 3 3
        h16_colon, ls32, ha_to_port], [Rep 0 3 HEXDIG, Ch 58 58, Rep 2 2 h16_colon, ls32,
        ha_to_port], [Rep 0 3 HEXDIG, Ch 58 58, h16_colon, ls32, ha_to_port], [Rep 0 3 HEXDIG, Ch
        58 58, ls32, ha_to_port], [Rep 0 3 HEXDIG, Cat (Ch 58 58) h16, ha_to_port], [Cat (Ch 46
        46) (Cat dec_octet (Cat (Ch 46 46) (Cat dec_octet (Cat (Ch 46 46) dec_octet)))),
        ha_to_port], [DIGIT, Cat (Ch 46 46) (Cat dec_octet (Cat (Ch 46 46) (Cat dec_octet (Cat (Ch
        46 46) dec_octet)))), ha_to_port], [Cat (Ch 48 52) DIGIT, Cat (Ch 46 46) (Cat dec_octet
        (Cat (Ch 46 46) (Cat dec_octet (Cat (Ch 46 46) dec_octet)))), ha_to_port], [Cat (Ch 53 53)
        (Ch 48 53), Cat (Ch 46 46) (Cat dec_octet (Cat (Ch 46 46) (Cat dec_octet (Cat (Ch 46 46)
        dec_octet)))), ha_to_port], [Rep 0 3 HEXDIG, ha_to_port]], [[Rep 0 3 HEXDIG, Ch 58 58, Rep
        3 3 h16_colon, ls32, ha_to_end], [Rep 0 3 HEXDIG, Ch 58 58, Rep 2 2 h16_colon, ls32,
        ha_to_end], [Rep 0 3 HEXDIG, Ch 58 58, h16_colon, ls32, ha_to_end], [Rep 0 3 HEXDIG, Ch 58
        58, ls32, ha_to_end], [Rep 0 3 HEXDIG, Cat (Ch 58 58) h16, ha_to_end], [Cat (Ch 46 46)
        (Cat dec_octet (Cat (Ch 46 46) (Cat dec_octet (Cat (Ch 46 46) dec_octet)))), ha_to_end],
        [DIGIT, Cat (Ch 46 46) (Cat dec_octet (Cat (Ch 46 46) (Cat dec_octet (Cat (Ch 46 46)
        dec_octet)))), ha_to_end], [Cat (Ch 48 52) DIGIT, Cat (Ch 46 46) (Cat dec_octet (Cat (Ch
        46 46) (Cat dec_octet (Cat (Ch 46 46) dec_octet)))), ha_to_end], [Cat (Ch 53 53) (Ch 48
        53), Cat (Ch 46 46) (Cat dec_octet (Cat (Ch 46 46) (Cat dec_octet (Cat (Ch 46 46)
        dec_octet)))), ha_to_end], [Rep 0 3 HEXDIG, ha_to_end]], [], [[Rep 0 3 HEXDIG, Ch 58 58,
        Rep 3 3 h16_colon, ls32, ha_address2], [Rep 0 3 HEXDIG, Ch 58 58, Rep 2 2 h16_colon, ls32,
        ha_address2], [Rep 0 3 HEXDIG, Ch 58 58, h16_colon, ls32, ha_address2], [Rep 0 3 HEXDIG,
        Ch 58 58, ls32, ha_address2], [Rep 0 3 HEXDIG, Cat (Ch 58 58) h16, ha_address2], [Cat (Ch
        46 46) (Cat dec_octet (Cat (Ch 46 46) (Cat dec_octet (Cat (Ch 46 46) dec_octet)))),
        ha_address2], [DIGIT, Cat (Ch 46 46) (Cat dec_octet (Cat (Ch 46 46) (Cat dec_octet (Cat
        (Ch 46 46) dec_octet)))), ha_address2], [Cat (Ch 48 52) DIGIT, Cat (Ch 46 46) (Cat
        dec_octet (Cat (Ch 46 46) (Cat dec_octet (Cat (Ch 46 46) dec_octet)))), ha_address2], [Cat
        (Ch 53 53) (Ch 48 53), Cat (Ch 46 46) (Cat dec_octet (Cat (Ch 46 46) (Cat dec_octet (Cat
        (Ch 46 46) dec_octet)))), ha_address2], [Rep 0 3 HEXDIG, ha_address2]]]])
      else
      if s = 348 then ([-128, 32, 33, 46, 47, 48, 54, 58, 59, 65, 71, 97, 103], [[[], [[Rep 0 2
        HEXDIG, Ch 58 58, Rep 3 3 h16_colon, ls32, Ch 32 32], [Rep 0 2 HEXDIG, Ch 58 58, Rep 2 2
        h16_colon, ls32, Ch 32 32], [Rep 0 2 HEXDIG, Ch 58 58, h16_colon, ls32, Ch 32 32], [Rep 0
        2 HEXDIG, Ch 58 58, ls32, Ch 32 32], [Rep 0 2 HEXDIG, Cat (Ch 58 58) h16, Ch 32 32], [Cat
        (Ch 46 46) (Cat dec_octet (Cat (Ch 46 46) (Cat dec_octet (Cat (Ch 46 46) dec_octet)))), Ch
        32 32], [Ch 48 53, Cat (Ch 46 46) (Cat dec_octet (Cat (Ch 46 46) (Cat dec_octet (Cat (Ch
        46 46) dec_octet)))), Ch 32 32], [Rep 0 2 HEXDIG, Ch 32 32]], [[Rep 0 2 HEXDIG, Ch 58 58,
        Rep 3 3 h16_colon, ls32, ha_to_port], [Rep 0 2 HEXDIG, Ch 58 58, Rep 2 2 h16_colon, ls32,
        ha_to_port], [Rep 0 2 HEXDIG, Ch 58 58, h16_colon, ls32, ha_to_port], [Rep 0 2 HEXDIG, Ch
        58 58, ls32, ha_to_port], [Rep 0 2 HEXDIG, Cat (Ch 58 58) h16, ha_to_port], [Cat (Ch 46
        46) (Cat dec_octet (Cat (Ch 46 46) (Cat dec_octet (Cat (Ch 46 46) dec_octet)))),
        ha_to_port], [Ch 48 53, Cat (Ch 46 46) (Cat dec_octet (Cat (Ch 46 46) (Cat dec_octet (Cat
        (Ch 46 46) dec_octet)))), ha_to_port], [Rep 0 2 HEXDIG, ha_to_port]], [[Rep 0 2 HEXDIG, Ch
        58 58, Rep 3 3 h16_colon, ls32, ha_to_end], [Rep 0 2 HEXDIG, Ch 58 58, Rep 2 2 h16_colon,
        ls32, ha_to_end], [Rep 0 2 HEXDIG, Ch 58 58, h16_colon, ls32, ha_to_end], [Rep 0 2 HEXDIG,
        Ch 58 58, ls32, ha_to_end], [Rep 0 2 HEXDIG, Cat (Ch 58 58) h16, ha_to_end], [Cat (Ch 46
        46) (Cat dec_octet (Cat (Ch 46 46) (Cat dec_octet (Cat (Ch 46 46) dec_octet)))),
        ha_to_end], [Ch 48 53, Cat (Ch 46 46) (Cat dec_octet (Cat (Ch 46 46) (Cat dec_octet (Cat
        (Ch 46 46) dec_octet)))), ha_to_end], [Rep 0 2 HEXDIG, ha_to_end]], [], [[Rep 0 2 HEXDIG,
        Ch 58 58, Rep 3 3 h16_colon, ls32, ha_address2], [Rep 0 2 HEXDIG, Ch 58 58, Rep 2 2
        h16_colon, ls32, ha_address2], [Rep 0 2 HEXDIG, Ch 58 58, h16_colon, ls32, ha_address2],
        [Rep 0 2 HEXDIG, Ch 58 58, ls32, ha_address2], [Rep 0 2 HEXDIG, Cat (Ch 58 58) h16,
        ha_address2], [Cat (Ch 46 46) (Cat dec_octet (Cat (Ch 46 46) (Cat dec_octet (Cat (Ch 46
        46) dec_octet)))), ha_address2], [Ch 48 53, Cat (Ch 46 46) (Cat dec_octet (Cat (Ch 46 46)
        (Cat dec_octet (Cat (Ch 46 46) dec_octet)))), ha_address2], [Rep 0 2 HEXDIG,
        ha_address2]]]])
      else
      if s = 349 then ([-128, 32, 33, 46, 47, 48, 58, 59, 65, 71, 97, 103], [[[], [[Rep 0 2
        HEXDIG, Ch 58 58, Rep 3 3 h16_colon, ls32, Ch 32 32], [Rep 0 2 HEXDIG, Ch 58 58, Rep 2 2
        h16_colon, ls32, Ch 32 32], [Rep 0 2 HEXDIG, Ch 58 58, h16_colon, ls32, Ch 32 32], [Rep 0
        2 HEXDIG, Ch 58 58, ls32, Ch 32 32], [Rep 0 2 HEXDIG, Cat (Ch 58 58) h16, Ch 32 32], [Cat
        (Ch 46 46) (Cat dec_octet (Cat (Ch 46 46) (Cat dec_octet (Cat (Ch 46 46) dec_octet)))), Ch
        32 32], [Rep 0 2 HEXDIG, Ch 32 32]], [[Rep 0 2 HEXDIG, Ch 58 58, Rep 3 3 h16_colon, ls32,
        ha_to_port], [Rep 0 2 HEXDIG, Ch 58 58, Rep 2 2 h16_colon, ls32, ha_to_port], [Rep 0 2
        HEXDIG, Ch 58 58, h16_colon, ls32, ha_to_port], [Rep 0 2 HEXDIG, Ch 58 58, ls32,
        ha_to_port], [Rep 0 2 HEXDIG, Cat (Ch 58 58) h16, ha_to_port], [Cat (Ch 46 46) (Cat
        dec_octet (Cat (Ch 46 46) (Cat dec_octet (Cat (Ch 46 46) dec_octet)))), ha_to_port], [Rep
        0 2 HEXDIG, ha_to_port]], [[Rep 0 2 HEXDIG, Ch 58 58, Rep 3 3 h16_colon, ls32, ha_to_end],
        [Rep 0 2 HEXDIG, Ch 58 58, Rep 2 2 h16_colon, ls32, ha_to_end], [Rep 0 2 HEXDIG, Ch 58 58,
        h16_colon, ls32, ha_to_end], [Rep 0 2 HEXDIG, Ch 58 58, ls32, ha_to_end], [Rep 0 2 HEXDIG,
        Cat (Ch 58 58) h16, ha_to_end], [Cat (Ch 46 46) (Cat dec_octet (Cat (Ch 46 46) (Cat
        dec_octet (Cat (Ch 46 46) dec_octet)))), ha_to_end], [Rep 0 2 HEXDIG, ha_to_end]], [],
        [[Rep 0 2 HEXDIG, Ch 58 58, Rep 3 3 h16_colon, ls32, ha_address2], [Rep 0 2 HEXDIG, Ch 58
        58, Rep 2 2 h16_colon, ls32, ha_address2], [Rep 0 2 HEXDIG, Ch 58 58, h16_colon, ls32,
        ha_address2], [Rep 0 2 HEXDIG, Ch 58 58, ls32, ha_address2], [Rep 0 2 HEXDIG, Cat (Ch 58
        58) h16, ha_address2], [Cat (Ch 46 46) (Cat dec_octet (Cat (Ch 46 46) (Cat dec_octet (Cat
        (Ch 46 46) dec_octet)))), ha_address2], [Rep 0 2 HEXDIG, ha_address2]]]])
      else
      if s = 350 then ([-128, 32, 33, 46, 47, 48, 58, 59, 65, 71, 97, 103], [[[], [[Rep 0 3
        HEXDIG, Ch 58 58, Rep 3 3 h16_colon, ls32, Ch 32 32], [Rep 0 3 HEXDIG, Ch 58 58, Rep 2 2
        h16_colon, ls32, Ch 32 32], [Rep 0 3 HEXDIG, Ch 58 58, h16_colon, ls32, Ch 32 32], [Rep 0
        3 HEXDIG, Ch 58 58, ls32, Ch 32 32], [Rep 0 3 HEXDIG, Cat (Ch 58 58) h16, Ch 32 32], [Cat
        (Ch 46 46) (Cat dec_octet (Cat (Ch 46 46) (Cat dec_octet (Cat (Ch 46 46) dec_octet)))), Ch
        32 32], [DIGIT, Cat (Ch 46 46) (Cat dec_octet (Cat (Ch 46 46) (Cat dec_octet (Cat (Ch 46
        46) dec_octet)))), Ch 32 32], [Rep 0 3 HEXDIG, Ch 32 32]], [[Rep 0 3 HEXDIG, Ch 58 58, Rep
        3 3 h16_colon, ls32, ha_to_port], [Rep 0 3 HEXDIG, Ch 58 58, Rep 2 2 h16_colon, ls32,
        ha_to_port], [Rep 0 3 HEXDIG, Ch 58 58, h16_colon, ls32, ha_to_port], [Rep 0 3 HEXDIG, Ch
        58 58, ls32, ha_to_port], [Rep 0 3 HEXDIG, Cat (Ch 58 58) h16, ha_to_port], [Cat (Ch 46
        46) (Cat dec_octet (Cat (Ch 46 46) (Cat dec_octet (Cat (Ch 46 46) dec_octet)))),
        ha_to_port], [DIGIT, Cat (Ch 46 46) (Cat dec_octet (Cat (Ch 46 46) (Cat dec_octet (Cat (Ch
        46 46) dec_octet)))), ha_to_port], [Rep 0 3 HEXDIG, ha_to_port]], [[Rep 0 3 HEXDIG, Ch 58
        58, Rep 3 3 h16_colon, ls32, ha_to_end], [Rep 0 3 HEXDIG, Ch 58 58, Rep 2 2 h16_colon,
        ls32, ha_to_end], [Rep 0 3 HEXDIG, Ch 58 58, h16_colon, ls32, ha_to_end], [Rep 0 3 HEXDIG,
        Ch 58 58, ls32, ha_to_end], [Rep 0 3 HEXDIG, Cat (Ch 58 58) h16, ha_to_end], [Cat (Ch 46
        46) (Cat dec_octet (Cat (Ch 46 46) (Cat dec_octet (Cat (Ch 46 46) dec_octet)))),
        ha_to_end], [DIGIT, Cat (Ch 46 46) (Cat dec_octet (Cat (Ch 46 46) (Cat dec_octet (Cat (Ch
        46 46) dec_octet)))), ha_to_end], [Rep 0 3 HEXDIG, ha_to_end]], [], [[Rep 0 3 HEXDIG, Ch
        58 58, Rep 3 3 h16_colon, ls32, ha_address2], [Rep 0 3 HEXDIG, Ch 58 58, Rep 2 2
        h16_colon, ls32, ha_address2], [Rep 0 3 HEXDIG, Ch 58 58, h16_colon, ls32, ha_address2],
        [Rep 0 3 HEXDIG, Ch 58 58, ls32, ha_address2], [Rep 0 3 HEXDIG, Cat (Ch 58 58) h16,
        ha_address2], [Cat (Ch 46 46) (Cat dec_octet (Cat (Ch 46 46) (Cat dec_octet (Cat (Ch 46
        46) dec_octet)))), ha_address2], [DIGIT, Cat (Ch 46 46) (Cat dec_octet (Cat (Ch 46 46)
        (Cat dec_octet (Cat (Ch 46 46) dec_octet)))), ha_address2], [Rep 0 3 HEXDIG,
        ha_address2]]]])
      else
      if s = 351 then ([-128, 32, 33, 48, 58, 59, 65, 71, 97, 103], [[[], [[Rep 0 3 HEXDIG, Ch 58
        58, Rep 3 3 h16_colon, ls32, Ch 32 32], [Rep 0 3 HEXDIG, Ch 58 58, Rep 2 2 h16_colon,
        ls32, Ch 32 32], [Rep 0 3 HEXDIG, Ch 58 58, h16_colon, ls32, Ch 32 32], [Rep 0 3 HEXDIG,
        Ch 58 58, ls32, Ch 32 32], [Rep 0 3 HEXDIG, Cat (Ch 58 58) h16, Ch 32 32], [Rep 0 3
        HEXDIG, Ch 32 32]], [[Rep 0 3 HEXDIG, Ch 58 58, Rep 3 3 h16_colon, ls32, ha_to_port], [Rep
        0 3 HEXDIG, Ch 58 58, Rep 2 2 h16_colon, ls32, ha_to_port], [Rep 0 3 HEXDIG, Ch 58 58,
        h16_colon, ls32, ha_to_port], [Rep 0 3 HEXDIG, Ch 58 58, ls32, ha_to_port], [Rep 0 3
        HEXDIG, Cat (Ch 58 58) h16, ha_to_port], [Rep 0 3 HEXDIG, ha_to_port]], [[Rep 0 3 HEXDIG,
        Ch 58 58, Rep 3 3 h16_colon, ls32, ha_to_end], [Rep 0 3 HEXDIG, Ch 58 58, Rep 2 2
        h16_colon, ls32, ha_to_end], [Rep 0 3 HEXDIG, Ch 58 58, h16_colon, ls32, ha_to_end], [Rep
        0 3 HEXDIG, Ch 58 58, ls32, ha_to_end], [Rep 0 3 HEXDIG, Cat (Ch 58 58) h16, ha_to_end],
        [Rep 0 3 HEXDIG, ha_to_end]], [], [[Rep 0 3 HEXDIG, Ch 58 58, Rep 3 3 h16_colon, ls32,
        ha_address2], [Rep 0 3 HEXDIG, Ch 58 58, Rep 2 2 h16_colon, ls32, ha_address2], [Rep 0 3
        HEXDIG, Ch 58 58, h16_colon, ls32, ha_address2], [Rep 0 3 HEXDIG, Ch 58 58, ls32,
        ha_address2], [Rep 0 3 HEXDIG, Cat (Ch 58 58) h16, ha_address2], [Rep 0 3 HEXDIG,
        ha_address2]]]])
      else
      ([-128, 46, 47, 48, 58, 59, 65, 71, 97, 103], [[[[Cat (Ch 46 46) (Cat dec_octet (Cat (Ch 46
        46) (Cat dec_octet (Cat (Ch 46 46) dec_octet)))), Ch 32 32], [DIGIT, Cat (Ch 46 46) (Cat
        dec_octet (Cat (Ch 46 46) (Cat dec_octet (Cat (Ch 46 46) dec_octet)))), Ch 32 32], [Rep 2
        2 DIGIT, Cat (Ch 46 46) (Cat dec_octet (Cat (Ch 46 46) (Cat dec_octet (Cat (Ch 46 46)
        dec_octet)))), Ch 32 32]], [[Rep 0 3 HEXDIG, Ch 58 58, Rep 5 5 h16_colon, ls32, Ch 32 32],
        [Rep 0 3 HEXDIG, Cat dcolon (Cat (Rep 4 4 h16_colon) ls32), Ch 32 32], [Rep 0 3 HEXDIG,
        Cat dcolon (Cat (Rep 3 3 h16_colon) ls32), Ch 32 32], [Rep 0 3 HEXDIG, Ch 58 58, h16, Cat
        dcolon (Cat (Rep 3 3 h16_colon) ls32), Ch 32 32], [Rep 0 3 HEXDIG, Cat dcolon (Cat (Rep 2
        2 h16_colon) ls32), Ch 32 32], [Rep 0 3 HEXDIG, Ch 58 58, Rep 0 1 h16_colon, h16, Cat
        dcolon (Cat (Rep 2 2 h16_colon) ls32), Ch 32 32], [Rep 0 3 HEXDIG, Cat dcolon (Cat
        h16_colon ls32), Ch 32 32], [Rep 0 3 HEXDIG, Ch 58 58, Rep 0 2 h16_colon, h16, Cat dcolon
        (Cat h16_colon ls32), Ch 32 32], [Rep 0 3 HEXDIG, Cat dcolon ls32, Ch 32 32], [Rep 0 3
        HEXDIG, Ch 58 58, Rep 0 3 h16_colon, h16, Cat dcolon ls32, Ch 32 32], [Rep 0 3 HEXDIG, Cat
        dcolon h16, Ch 32 32], [Rep 0 3 HEXDIG, Ch 58 58, Rep 0 4 h16_colon, h16, Cat dcolon h16,
        Ch 32 32], [Rep 0 3 HEXDIG, dcolon, Ch 32 32], [Rep 0 3 HEXDIG, Ch 58 58, Rep 0 5
        h16_colon, h16, dcolon, Ch 32 32]], [[Cat (Ch 46 46) (Cat dec_octet (Cat (Ch 46 46) (Cat
        dec_octet (Cat (Ch 46 46) dec_octet)))), ha_to_port], [DIGIT, Cat (Ch 46 46) (Cat
        dec_octet (Cat (Ch 46 46) (Cat dec_octet (Cat (Ch 46 46) dec_octet)))), ha_to_port], [Rep
        2 2 DIGIT, Cat (Ch 46 46) (Cat dec_octet (Cat (Ch 46 46) (Cat dec_octet (Cat (Ch 46 46)
        dec_octet)))), ha_to_port], [Rep 0 3 HEXDIG, Ch 58 58, Rep 5 5 h16_colon, ls32,
        ha_to_port], [Rep 0 3 HEXDIG, Cat dcolon (Cat (Rep 4 4 h16_colon) ls32), ha_to_port], [Rep
        0 3 HEXDIG, Cat dcolon (Cat (Rep 3 3 h16_colon) ls32), ha_to_port], [Rep 0 3 HEXDIG, Ch 58
        58, h16, Cat dcolon (Cat (Rep 3 3 h16_colon) ls32), ha_to_port], [Rep 0 3 HEXDIG, Cat
        dcolon (Cat (Rep 2 2 h16_colon) ls32), ha_to_port], [Rep 0 3 HEXDIG, Ch 58 58, Rep 0 1
        h16_colon, h16, Cat dcolon (Cat (Rep 2 2 h16_colon) ls32), ha_to_port], [Rep 0 3 HEXDIG,
        Cat dcolon (Cat h16_colon ls32), ha_to_port], [Rep 0 3 HEXDIG, Ch 58 58, Rep 0 2
        h16_colon, h16, Cat dcolon (Cat h16_colon ls32), ha_to_port], [Rep 0 3 HEXDIG, Cat dcolon
        ls32, ha_to_port], [Rep 0 3 HEXDIG, Ch 58 58, Rep 0 3 h16_colon, h16, Cat dcolon ls32,
        ha_to_port], [Rep 0 3 HEXDIG, Cat dcolon h16, ha_to_port], [Rep 0 3 HEXDIG, Ch 58 58, Rep
        0 4 h16_colon, h16, Cat dcolon h16, ha_to_port], [Rep 0 3 HEXDIG, dcolon, ha_to_port],
        [Rep 0 3 HEXDIG, Ch 58 58, Rep 0 5 h16_colon, h16, dcolon, ha_to_port]], [[Cat (Ch 46 46)
        (Cat dec_octet (Cat (Ch 46 46) (Cat dec_octet (Cat (Ch 46 46) dec_octet)))), ha_to_end],
        [DIGIT, Cat (Ch 46 46) (Cat dec_octet (Cat (Ch 46 46) (Cat dec_octet (Cat (Ch 46 46)
        dec_octet)))), ha_to_end], [Rep 2 2 DIGIT, Cat (Ch 46 46) (Cat dec_octet (Cat (Ch 46 46)
        (Cat dec_octet (Cat (Ch 46 46) dec_octet)))), ha_to_end], [Rep 0 3 HEXDIG, Ch 58 58, Rep 5
        5 h16_colon, ls32, ha_to_end], [Rep 0 3 HEXDIG, Cat dcolon (Cat (Rep 4 4 h16_colon) ls32),
        ha_to_end], [Rep 0 3 HEXDIG, Cat dcolon (Cat (Rep 3 3 h16_colon) ls32), ha_to_end], [Rep 0
        3 HEXDIG, Ch 58 58, h16, Cat dcolon (Cat (Rep 3 3 h16_colon) ls32), ha_to_end], [Rep 0 3
        HEXDIG, Cat dcolon (Cat (Rep 2 2 h16_colon) ls32), ha_to_end], [Rep 0 3 HEXDIG, Ch 58 58,
        Rep 0 1 h16_colon, h16, Cat dcolon (Cat (Rep 2 2 h16_colon) ls32), ha_to_end], [Rep 0 3
        HEXDIG, Cat dcolon (Cat h16_colon ls32), ha_to_end], [Rep 0 3 HEXDIG, Ch 58 58, Rep 0 2
        h16_colon, h16, Cat dcolon (Cat h16_colon ls32), ha_to_end], [Rep 0 3 HEXDIG, Cat dcolon
        ls32, ha_to_end], [Rep 0 3 HEXDIG, Ch 58 58, Rep 0 3 h16_colon, h16, Cat dcolon ls32,
        ha_to_end], [Rep 0 3 HEXDIG, Cat dcolon h16, ha_to_end], [Rep 0 3 HEXDIG, Ch 58 58, Rep 0
        4 h16_colon, h16, Cat dcolon h16, ha_to_end], [Rep 0 3 HEXDIG, dcolon, ha_to_end], [Rep 0
        3 HEXDIG, Ch 58 58, Rep 0 5 h16_colon, h16, dcolon, ha_to_end]], [], [[Cat (Ch 46 46) (Cat
        dec_octet (Cat (Ch 46 46) (Cat dec_octet (Cat (Ch 46 46) dec_octet)))), ha_address2],
        [DIGIT, Cat (Ch 46 46) (Cat dec_octet (Cat (Ch 46 46) (Cat dec_octet (Cat (Ch 46 46)
        dec_octet)))), ha_address2], [Rep 2 2 DIGIT, Cat (Ch 46 46) (Cat dec_octet (Cat (Ch 46 46)
        (Cat dec_octet (Cat (Ch 46 46) dec_octet)))), ha_address2], [Rep 0 3 HEXDIG, Ch 58 58, Rep
        5 5 h16_colon, ls32, ha_address2], [Rep 0 3 HEXDIG, Cat dcolon (Cat (Rep 4 4 h16_colon)
        ls32), ha_address2], [Rep 0 3 HEXDIG, Cat dcolon (Cat (Rep 3 3 h16_colon) ls32),
        ha_address2], [Rep 0 3 HEXDIG, Ch 58 58, h16, Cat dcolon (Cat (Rep 3 3 h16_colon) ls32),
        ha_address2], [Rep 0 3 HEXDIG, Cat dcolon (Cat (Rep 2 2 h16_colon) ls32), ha_address2],
        [Rep 0 3 HEXDIG, Ch 58 58, Rep 0 1 h16_colon, h16, Cat dcolon (Cat (Rep 2 2 h16_colon)
        ls32), ha_address2], [Rep 0 3 HEXDIG, Cat dcolon (Cat h16_colon ls32), ha_address2], [Rep
        0 3 HEXDIG, Ch 58 58, Rep 0 2 h16_colon, h16, Cat dcolon (Cat h16_colon ls32),
        ha_address2], [Rep 0 3 HEXDIG, Cat dcolon ls32, ha_address2], [Rep 0 3 HEXDIG, Ch 58 58,
        Rep 0 3 h16_colon, h16, Cat dcolon ls32, ha_address2], [Rep 0 3 HEXDIG, Cat dcolon h16,
        ha_address2], [Rep 0 3 HEXDIG, Ch 58 58, Rep 0 4 h16_colon, h16, Cat dcolon h16,
        ha_address2], [Rep 0 3 HEXDIG, dcolon, ha_address2], [Rep 0 3 HEXDIG, Ch 58 58, Rep 0 5
        h16_colon, h16, dcolon, ha_address2]]]]))"

definition ha_expects_45 :: certificate where
  "ha_expects_45 s =
     (if s = 353 then ([-128, 46, 47, 48, 58, 59, 65, 71, 97, 103], [[[[Cat (Ch 46 46) (Cat
        dec_octet (Cat (Ch 46 46) (Cat dec_octet (Cat (Ch 46 46) dec_octet)))), Ch 32 32], [DIGIT,
        Cat (Ch 46 46) (Cat dec_octet (Cat (Ch 46 46) (Cat dec_octet (Cat (Ch 46 46)
        dec_octet)))), Ch 32 32]], [[Rep 0 2 HEXDIG, Ch 58 58, Rep 5 5 h16_colon, ls32, Ch 32 32],
        [Rep 0 2 HEXDIG, Cat dcolon (Cat (Rep 4 4 h16_colon) ls32), Ch 32 32], [Rep 0 2 HEXDIG,
        Cat dcolon (Cat (Rep 3 3 h16_colon) ls32), Ch 32 32], [Rep 0 2 HEXDIG, Ch 58 58, h16, Cat
        dcolon (Cat (Rep 3 3 h16_colon) ls32), Ch 32 32], [Rep 0 2 HEXDIG, Cat dcolon (Cat (Rep 2
        2 h16_colon) ls32), Ch 32 32], [Rep 0 2 HEXDIG, Ch 58 58, Rep 0 1 h16_colon, h16, Cat
        dcolon (Cat (Rep 2 2 h16_colon) ls32), Ch 32 32], [Rep 0 2 HEXDIG, Cat dcolon (Cat
        h16_colon ls32), Ch 32 32], [Rep 0 2 HEXDIG, Ch 58 58, Rep 0 2 h16_colon, h16, Cat dcolon
        (Cat h16_colon ls32), Ch 32 32], [Rep 0 2 HEXDIG, Cat dcolon ls32, Ch 32 32], [Rep 0 2
        HEXDIG, Ch 58 58, Rep 0 3 h16_colon, h16, Cat dcolon ls32, Ch 32 32], [Rep 0 2 HEXDIG, Cat
        dcolon h16, Ch 32 32], [Rep 0 2 HEXDIG, Ch 58 58, Rep 0 4 h16_colon, h16, Cat dcolon h16,
        Ch 32 32], [Rep 0 2 HEXDIG, dcolon, Ch 32 32], [Rep 0 2 HEXDIG, Ch 58 58, Rep 0 5
        h16_colon, h16, dcolon, Ch 32 32]], [[Cat (Ch 46 46) (Cat dec_octet (Cat (Ch 46 46) (Cat
        dec_octet (Cat (Ch 46 46) dec_octet)))), ha_to_port], [DIGIT, Cat (Ch 46 46) (Cat
        dec_octet (Cat (Ch 46 46) (Cat dec_octet (Cat (Ch 46 46) dec_octet)))), ha_to_port], [Rep
        0 2 HEXDIG, Ch 58 58, Rep 5 5 h16_colon, ls32, ha_to_port], [Rep 0 2 HEXDIG, Cat dcolon
        (Cat (Rep 4 4 h16_colon) ls32), ha_to_port], [Rep 0 2 HEXDIG, Cat dcolon (Cat (Rep 3 3
        h16_colon) ls32), ha_to_port], [Rep 0 2 HEXDIG, Ch 58 58, h16, Cat dcolon (Cat (Rep 3 3
        h16_colon) ls32), ha_to_port], [Rep 0 2 HEXDIG, Cat dcolon (Cat (Rep 2 2 h16_colon) ls32),
        ha_to_port], [Rep 0 2 HEXDIG, Ch 58 58, Rep 0 1 h16_colon, h16, Cat dcolon (Cat (Rep 2 2
        h16_colon) ls32), ha_to_port], [Rep 0 2 HEXDIG, Cat dcolon (Cat h16_colon ls32),
        ha_to_port], [Rep 0 2 HEXDIG, Ch 58 58, Rep 0 2 h16_colon, h16, Cat dcolon (Cat h16_colon
        ls32), ha_to_port], [Rep 0 2 HEXDIG, Cat dcolon ls32, ha_to_port], [Rep 0 2 HEXDIG, Ch 58
        58, Rep 0 3 h16_colon, h16, Cat dcolon ls32, ha_to_port], [Rep 0 2 HEXDIG, Cat dcolon h16,
        ha_to_port], [Rep 0 2 HEXDIG, Ch 58 58, Rep 0 4 h16_colon, h16, Cat dcolon h16,
        ha_to_port], [Rep 0 2 HEXDIG, dcolon, ha_to_port], [Rep 0 2 HEXDIG, Ch 58 58, Rep 0 5
        h16_colon, h16, dcolon, ha_to_port]], [[Cat (Ch 46 46) (Cat dec_octet (Cat (Ch 46 46) (Cat
        dec_octet (Cat (Ch 46 46) dec_octet)))), ha_to_end], [DIGIT, Cat (Ch 46 46) (Cat dec_octet
        (Cat (Ch 46 46) (Cat dec_octet (Cat (Ch 46 46) dec_octet)))), ha_to_end], [Rep 0 2 HEXDIG,
        Ch 58 58, Rep 5 5 h16_colon, ls32, ha_to_end], [Rep 0 2 HEXDIG, Cat dcolon (Cat (Rep 4 4
        h16_colon) ls32), ha_to_end], [Rep 0 2 HEXDIG, Cat dcolon (Cat (Rep 3 3 h16_colon) ls32),
        ha_to_end], [Rep 0 2 HEXDIG, Ch 58 58, h16, Cat dcolon (Cat (Rep 3 3 h16_colon) ls32),
        ha_to_end], [Rep 0 2 HEXDIG, Cat dcolon (Cat (Rep 2 2 h16_colon) ls32), ha_to_end], [Rep 0
        2 HEXDIG, Ch 58 58, Rep 0 1 h16_colon, h16, Cat dcolon (Cat (Rep 2 2 h16_colon) ls32),
        ha_to_end], [Rep 0 2 HEXDIG, Cat dcolon (Cat h16_colon ls32), ha_to_end], [Rep 0 2 HEXDIG,
        Ch 58 58, Rep 0 2 h16_colon, h16, Cat dcolon (Cat h16_colon ls32), ha_to_end], [Rep 0 2
        HEXDIG, Cat dcolon ls32, ha_to_end], [Rep 0 2 HEXDIG, Ch 58 58, Rep 0 3 h16_colon, h16,
        Cat dcolon ls32, ha_to_end], [Rep 0 2 HEXDIG, Cat dcolon h16, ha_to_end], [Rep 0 2 HEXDIG,
        Ch 58 58, Rep 0 4 h16_colon, h16, Cat dcolon h16, ha_to_end], [Rep 0 2 HEXDIG, dcolon,
        ha_to_end], [Rep 0 2 HEXDIG, Ch 58 58, Rep 0 5 h16_colon, h16, dcolon, ha_to_end]], [],
        [[Cat (Ch 46 46) (Cat dec_octet (Cat (Ch 46 46) (Cat dec_octet (Cat (Ch 46 46)
        dec_octet)))), ha_address2], [DIGIT, Cat (Ch 46 46) (Cat dec_octet (Cat (Ch 46 46) (Cat
        dec_octet (Cat (Ch 46 46) dec_octet)))), ha_address2], [Rep 0 2 HEXDIG, Ch 58 58, Rep 5 5
        h16_colon, ls32, ha_address2], [Rep 0 2 HEXDIG, Cat dcolon (Cat (Rep 4 4 h16_colon) ls32),
        ha_address2], [Rep 0 2 HEXDIG, Cat dcolon (Cat (Rep 3 3 h16_colon) ls32), ha_address2],
        [Rep 0 2 HEXDIG, Ch 58 58, h16, Cat dcolon (Cat (Rep 3 3 h16_colon) ls32), ha_address2],
        [Rep 0 2 HEXDIG, Cat dcolon (Cat (Rep 2 2 h16_colon) ls32), ha_address2], [Rep 0 2 HEXDIG,
        Ch 58 58, Rep 0 1 h16_colon, h16, Cat dcolon (Cat (Rep 2 2 h16_colon) ls32), ha_address2],
        [Rep 0 2 HEXDIG, Cat dcolon (Cat h16_colon ls32), ha_address2], [Rep 0 2 HEXDIG, Ch 58 58,
        Rep 0 2 h16_colon, h16, Cat dcolon (Cat h16_colon ls32), ha_address2], [Rep 0 2 HEXDIG,
        Cat dcolon ls32, ha_address2], [Rep 0 2 HEXDIG, Ch 58 58, Rep 0 3 h16_colon, h16, Cat
        dcolon ls32, ha_address2], [Rep 0 2 HEXDIG, Cat dcolon h16, ha_address2], [Rep 0 2 HEXDIG,
        Ch 58 58, Rep 0 4 h16_colon, h16, Cat dcolon h16, ha_address2], [Rep 0 2 HEXDIG, dcolon,
        ha_address2], [Rep 0 2 HEXDIG, Ch 58 58, Rep 0 5 h16_colon, h16, dcolon, ha_address2]]]])
      else
      if s = 354 then ([-128, 46, 47, 48, 58, 59, 65, 71, 97, 103], [[[[Cat (Ch 46 46) (Cat
        dec_octet (Cat (Ch 46 46) (Cat dec_octet (Cat (Ch 46 46) dec_octet)))), Ch 32 32]], [[Rep
        0 1 HEXDIG, Ch 58 58, Rep 5 5 h16_colon, ls32, Ch 32 32], [Rep 0 1 HEXDIG, Cat dcolon (Cat
        (Rep 4 4 h16_colon) ls32), Ch 32 32], [Rep 0 1 HEXDIG, Cat dcolon (Cat (Rep 3 3 h16_colon)
        ls32), Ch 32 32], [Rep 0 1 HEXDIG, Ch 58 58, h16, Cat dcolon (Cat (Rep 3 3 h16_colon)
        ls32), Ch 32 32], [Rep 0 1 HEXDIG, Cat dcolon (Cat (Rep 2 2 h16_colon) ls32), Ch 32 32],
        [Rep 0 1 HEXDIG, Ch 58 58, Rep 0 1 h16_colon, h16, Cat dcolon (Cat (Rep 2 2 h16_colon)
        ls32), Ch 32 32], [Rep 0 1 HEXDIG, Cat dcolon (Cat h16_colon ls32), Ch 32 32], [Rep 0 1
        HEXDIG, Ch 58 58, Rep 0 2 h16_colon, h16, Cat dcolon (Cat h16_colon ls32), Ch 32 32], [Rep
        0 1 HEXDIG, Cat dcolon ls32, Ch 32 32], [Rep 0 1 HEXDIG, Ch 58 58, Rep 0 3 h16_colon, h16,
        Cat dcolon ls32, Ch 32 32], [Rep 0 1 HEXDIG, Cat dcolon h16, Ch 32 32], [Rep 0 1 HEXDIG,
        Ch 58 58, Rep 0 4 h16_colon, h16, Cat dcolon h16, Ch 32 32], [Rep 0 1 HEXDIG, dcolon, Ch
        32 32], [Rep 0 1 HEXDIG, Ch 58 58, Rep 0 5 h16_colon, h16, dcolon, Ch 32 32]], [[Cat (Ch
        46 46) (Cat dec_octet (Cat (Ch 46 46) (Cat dec_octet (Cat (Ch 46 46) dec_octet)))),
        ha_to_port], [Rep 0 1 HEXDIG, Ch 58 58, Rep 5 5 h16_colon, ls32, ha_to_port], [Rep 0 1
        HEXDIG, Cat dcolon (Cat (Rep 4 4 h16_colon) ls32), ha_to_port], [Rep 0 1 HEXDIG, Cat
        dcolon (Cat (Rep 3 3 h16_colon) ls32), ha_to_port], [Rep 0 1 HEXDIG, Ch 58 58, h16, Cat
        dcolon (Cat (Rep 3 3 h16_colon) ls32), ha_to_port], [Rep 0 1 HEXDIG, Cat dcolon (Cat (Rep
        2 2 h16_colon) ls32), ha_to_port], [Rep 0 1 HEXDIG, Ch 58 58, Rep 0 1 h16_colon, h16, Cat
        dcolon (Cat (Rep 2 2 h16_colon) ls32), ha_to_port], [Rep 0 1 HEXDIG, Cat dcolon (Cat
        h16_colon ls32), ha_to_port], [Rep 0 1 HEXDIG, Ch 58 58, Rep 0 2 h16_colon, h16, Cat
        dcolon (Cat h16_colon ls32), ha_to_port], [Rep 0 1 HEXDIG, Cat dcolon ls32, ha_to_port],
        [Rep 0 1 HEXDIG, Ch 58 58, Rep 0 3 h16_colon, h16, Cat dcolon ls32, ha_to_port], [Rep 0 1
        HEXDIG, Cat dcolon h16, ha_to_port], [Rep 0 1 HEXDIG, Ch 58 58, Rep 0 4 h16_colon, h16,
        Cat dcolon h16, ha_to_port], [Rep 0 1 HEXDIG, dcolon, ha_to_port], [Rep 0 1 HEXDIG, Ch 58
        58, Rep 0 5 h16_colon, h16, dcolon, ha_to_port]], [[Cat (Ch 46 46) (Cat dec_octet (Cat (Ch
        46 46) (Cat dec_octet (Cat (Ch 46 46) dec_octet)))), ha_to_end], [Rep 0 1 HEXDIG, Ch 58
        58, Rep 5 5 h16_colon, ls32, ha_to_end], [Rep 0 1 HEXDIG, Cat dcolon (Cat (Rep 4 4
        h16_colon) ls32), ha_to_end], [Rep 0 1 HEXDIG, Cat dcolon (Cat (Rep 3 3 h16_colon) ls32),
        ha_to_end], [Rep 0 1 HEXDIG, Ch 58 58, h16, Cat dcolon (Cat (Rep 3 3 h16_colon) ls32),
        ha_to_end], [Rep 0 1 HEXDIG, Cat dcolon (Cat (Rep 2 2 h16_colon) ls32), ha_to_end], [Rep 0
        1 HEXDIG, Ch 58 58, Rep 0 1 h16_colon, h16, Cat dcolon (Cat (Rep 2 2 h16_colon) ls32),
        ha_to_end], [Rep 0 1 HEXDIG, Cat dcolon (Cat h16_colon ls32), ha_to_end], [Rep 0 1 HEXDIG,
        Ch 58 58, Rep 0 2 h16_colon, h16, Cat dcolon (Cat h16_colon ls32), ha_to_end], [Rep 0 1
        HEXDIG, Cat dcolon ls32, ha_to_end], [Rep 0 1 HEXDIG, Ch 58 58, Rep 0 3 h16_colon, h16,
        Cat dcolon ls32, ha_to_end], [Rep 0 1 HEXDIG, Cat dcolon h16, ha_to_end], [Rep 0 1 HEXDIG,
        Ch 58 58, Rep 0 4 h16_colon, h16, Cat dcolon h16, ha_to_end], [Rep 0 1 HEXDIG, dcolon,
        ha_to_end], [Rep 0 1 HEXDIG, Ch 58 58, Rep 0 5 h16_colon, h16, dcolon, ha_to_end]], [],
        [[Cat (Ch 46 46) (Cat dec_octet (Cat (Ch 46 46) (Cat dec_octet (Cat (Ch 46 46)
        dec_octet)))), ha_address2], [Rep 0 1 HEXDIG, Ch 58 58, Rep 5 5 h16_colon, ls32,
        ha_address2], [Rep 0 1 HEXDIG, Cat dcolon (Cat (Rep 4 4 h16_colon) ls32), ha_address2],
        [Rep 0 1 HEXDIG, Cat dcolon (Cat (Rep 3 3 h16_colon) ls32), ha_address2], [Rep 0 1 HEXDIG,
        Ch 58 58, h16, Cat dcolon (Cat (Rep 3 3 h16_colon) ls32), ha_address2], [Rep 0 1 HEXDIG,
        Cat dcolon (Cat (Rep 2 2 h16_colon) ls32), ha_address2], [Rep 0 1 HEXDIG, Ch 58 58, Rep 0
        1 h16_colon, h16, Cat dcolon (Cat (Rep 2 2 h16_colon) ls32), ha_address2], [Rep 0 1
        HEXDIG, Cat dcolon (Cat h16_colon ls32), ha_address2], [Rep 0 1 HEXDIG, Ch 58 58, Rep 0 2
        h16_colon, h16, Cat dcolon (Cat h16_colon ls32), ha_address2], [Rep 0 1 HEXDIG, Cat dcolon
        ls32, ha_address2], [Rep 0 1 HEXDIG, Ch 58 58, Rep 0 3 h16_colon, h16, Cat dcolon ls32,
        ha_address2], [Rep 0 1 HEXDIG, Cat dcolon h16, ha_address2], [Rep 0 1 HEXDIG, Ch 58 58,
        Rep 0 4 h16_colon, h16, Cat dcolon h16, ha_address2], [Rep 0 1 HEXDIG, dcolon,
        ha_address2], [Rep 0 1 HEXDIG, Ch 58 58, Rep 0 5 h16_colon, h16, dcolon, ha_address2]]]])
      else
      if s = 355 then ([-128, 46, 47, 48, 53, 54, 58, 59, 65, 71, 97, 103], [[[[Cat (Ch 46 46)
        (Cat dec_octet (Cat (Ch 46 46) (Cat dec_octet (Cat (Ch 46 46) dec_octet)))), Ch 32 32],
        [DIGIT, Cat (Ch 46 46) (Cat dec_octet (Cat (Ch 46 46) (Cat dec_octet (Cat (Ch 46 46)
        dec_octet)))), Ch 32 32], [Cat (Ch 48 52) DIGIT, Cat (Ch 46 46) (Cat dec_octet (Cat (Ch 46
        46) (Cat dec_octet (Cat (Ch 46 46) dec_octet)))), Ch 32 32], [Cat (Ch 53 53) (Ch 48 53),
        Cat (Ch 46 46) (Cat dec_octet (Cat (Ch 46 46) (Cat dec_octet (Cat (Ch 46 46)
        dec_octet)))), Ch 32 32]], [[Rep 0 3 HEXDIG, Ch 58 58, Rep 5 5 h16_colon, ls32, Ch 32 32],
        [Rep 0 3 HEXDIG, Cat dcolon (Cat (Rep 4 4 h16_colon) ls32), Ch 32 32], [Rep 0 3 HEXDIG,
        Cat dcolon (Cat (Rep 3 3 h16_colon) ls32), Ch 32 32], [Rep 0 3 HEXDIG, Ch 58 58, h16, Cat
        dcolon (Cat (Rep 3 3 h16_colon) ls32), Ch 32 32], [Rep 0 3 HEXDIG, Cat dcolon (Cat (Rep 2
        2 h16_colon) ls32), Ch 32 32], [Rep 0 3 HEXDIG, Ch 58 58, Rep 0 1 h16_colon, h16, Cat
        dcolon (Cat (Rep 2 2 h16_colon) ls32), Ch 32 32], [Rep 0 3 HEXDIG, Cat dcolon (Cat
        h16_colon ls32), Ch 32 32], [Rep 0 3 HEXDIG, Ch 58 58, Rep 0 2 h16_colon, h16, Cat dcolon
        (Cat h16_colon ls32), Ch 32 32], [Rep 0 3 HEXDIG, Cat dcolon ls32, Ch 32 32], [Rep 0 3
        HEXDIG, Ch 58 58, Rep 0 3 h16_colon, h16, Cat dcolon ls32, Ch 32 32], [Rep 0 3 HEXDIG, Cat
        dcolon h16, Ch 32 32], [Rep 0 3 HEXDIG, Ch 58 58, Rep 0 4 h16_colon, h16, Cat dcolon h16,
        Ch 32 32], [Rep 0 3 HEXDIG, dcolon, Ch 32 32], [Rep 0 3 HEXDIG, Ch 58 58, Rep 0 5
        h16_colon, h16, dcolon, Ch 32 32]], [[Cat (Ch 46 46) (Cat dec_octet (Cat (Ch 46 46) (Cat
        dec_octet (Cat (Ch 46 46) dec_octet)))), ha_to_port], [DIGIT, Cat (Ch 46 46) (Cat
        dec_octet (Cat (Ch 46 46) (Cat dec_octet (Cat (Ch 46 46) dec_octet)))), ha_to_port], [Cat
        (Ch 48 52) DIGIT, Cat (Ch 46 46) (Cat dec_octet (Cat (Ch 46 46) (Cat dec_octet (Cat (Ch 46
        46) dec_octet)))), ha_to_port], [Cat (Ch 53 53) (Ch 48 53), Cat (Ch 46 46) (Cat dec_octet
        (Cat (Ch 46 46) (Cat dec_octet (Cat (Ch 46 46) dec_octet)))), ha_to_port], [Rep 0 3
        HEXDIG, Ch 58 58, Rep 5 5 h16_colon, ls32, ha_to_port], [Rep 0 3 HEXDIG, Cat dcolon (Cat
        (Rep 4 4 h16_colon) ls32), ha_to_port], [Rep 0 3 HEXDIG, Cat dcolon (Cat (Rep 3 3
        h16_colon) ls32), ha_to_port], [Rep 0 3 HEXDIG, Ch 58 58, h16, Cat dcolon (Cat (Rep 3 3
        h16_colon) ls32), ha_to_port], [Rep 0 3 HEXDIG, Cat dcolon (Cat (Rep 2 2 h16_colon) ls32),
        ha_to_port], [Rep 0 3 HEXDIG, Ch 58 58, Rep 0 1 h16_colon, h16, Cat dcolon (Cat (Rep 2 2
        h16_colon) ls32), ha_to_port], [Rep 0 3 HEXDIG, Cat dcolon (Cat h16_colon ls32),
        ha_to_port], [Rep 0 3 HEXDIG, Ch 58 58, Rep 0 2 h16_colon, h16, Cat dcolon (Cat h16_colon
        ls32), ha_to_port], [Rep 0 3 HEXDIG, Cat dcolon ls32, ha_to_port], [Rep 0 3 HEXDIG, Ch 58
        58, Rep 0 3 h16_colon, h16, Cat dcolon ls32, ha_to_port], [Rep 0 3 HEXDIG, Cat dcolon h16,
        ha_to_port], [Rep 0 3 HEXDIG, Ch 58 58, Rep 0 4 h16_colon, h16, Cat dcolon h16,
        ha_to_port], [Rep 0 3 HEXDIG, dcolon, ha_to_port], [Rep 0 3 HEXDIG, Ch 58 58, Rep 0 5
        h16_colon, h16, dcolon, ha_to_port]], [[Cat (Ch 46 46) (Cat dec_octet (Cat (Ch 46 46) (Cat
        dec_octet (Cat (Ch 46 46) dec_octet)))), ha_to_end], [DIGIT, Cat (Ch 46 46) (Cat dec_octet
        (Cat (Ch 46 46) (Cat dec_octet (Cat (Ch 46 46) dec_octet)))), ha_to_end], [Cat (Ch 48 52)
        DIGIT, Cat (Ch 46 46) (Cat dec_octet (Cat (Ch 46 46) (Cat dec_octet (Cat (Ch 46 46)
        dec_octet)))), ha_to_end], [Cat (Ch 53 53) (Ch 48 53), Cat (Ch 46 46) (Cat dec_octet (Cat
        (Ch 46 46) (Cat dec_octet (Cat (Ch 46 46) dec_octet)))), ha_to_end], [Rep 0 3 HEXDIG, Ch
        58 58, Rep 5 5 h16_colon, ls32, ha_to_end], [Rep 0 3 HEXDIG, Cat dcolon (Cat (Rep 4 4
        h16_colon) ls32), ha_to_end], [Rep 0 3 HEXDIG, Cat dcolon (Cat (Rep 3 3 h16_colon) ls32),
        ha_to_end], [Rep 0 3 HEXDIG, Ch 58 58, h16, Cat dcolon (Cat (Rep 3 3 h16_colon) ls32),
        ha_to_end], [Rep 0 3 HEXDIG, Cat dcolon (Cat (Rep 2 2 h16_colon) ls32), ha_to_end], [Rep 0
        3 HEXDIG, Ch 58 58, Rep 0 1 h16_colon, h16, Cat dcolon (Cat (Rep 2 2 h16_colon) ls32),
        ha_to_end], [Rep 0 3 HEXDIG, Cat dcolon (Cat h16_colon ls32), ha_to_end], [Rep 0 3 HEXDIG,
        Ch 58 58, Rep 0 2 h16_colon, h16, Cat dcolon (Cat h16_colon ls32), ha_to_end], [Rep 0 3
        HEXDIG, Cat dcolon ls32, ha_to_end], [Rep 0 3 HEXDIG, Ch 58 58, Rep 0 3 h16_colon, h16,
        Cat dcolon ls32, ha_to_end], [Rep 0 3 HEXDIG, Cat dcolon h16, ha_to_end], [Rep 0 3 HEXDIG,
        Ch 58 58, Rep 0 4 h16_colon, h16, Cat dcolon h16, ha_to_end], [Rep 0 3 HEXDIG, dcolon,
        ha_to_end], [Rep 0 3 HEXDIG, Ch 58 58, Rep 0 5 h16_colon, h16, dcolon, ha_to_end]], [],
        [[Cat (Ch 46 46) (Cat dec_octet (Cat (Ch 46 46) (Cat dec_octet (Cat (Ch 46 46)
        dec_octet)))), ha_address2], [DIGIT, Cat (Ch 46 46) (Cat dec_octet (Cat (Ch 46 46) (Cat
        dec_octet (Cat (Ch 46 46) dec_octet)))), ha_address2], [Cat (Ch 48 52) DIGIT, Cat (Ch 46
        46) (Cat dec_octet (Cat (Ch 46 46) (Cat dec_octet (Cat (Ch 46 46) dec_octet)))),
        ha_address2], [Cat (Ch 53 53) (Ch 48 53), Cat (Ch 46 46) (Cat dec_octet (Cat (Ch 46 46)
        (Cat dec_octet (Cat (Ch 46 46) dec_octet)))), ha_address2], [Rep 0 3 HEXDIG, Ch 58 58, Rep
        5 5 h16_colon, ls32, ha_address2], [Rep 0 3 HEXDIG, Cat dcolon (Cat (Rep 4 4 h16_colon)
        ls32), ha_address2], [Rep 0 3 HEXDIG, Cat dcolon (Cat (Rep 3 3 h16_colon) ls32),
        ha_address2], [Rep 0 3 HEXDIG, Ch 58 58, h16, Cat dcolon (Cat (Rep 3 3 h16_colon) ls32),
        ha_address2], [Rep 0 3 HEXDIG, Cat dcolon (Cat (Rep 2 2 h16_colon) ls32), ha_address2],
        [Rep 0 3 HEXDIG, Ch 58 58, Rep 0 1 h16_colon, h16, Cat dcolon (Cat (Rep 2 2 h16_colon)
        ls32), ha_address2], [Rep 0 3 HEXDIG, Cat dcolon (Cat h16_colon ls32), ha_address2], [Rep
        0 3 HEXDIG, Ch 58 58, Rep 0 2 h16_colon, h16, Cat dcolon (Cat h16_colon ls32),
        ha_address2], [Rep 0 3 HEXDIG, Cat dcolon ls32, ha_address2], [Rep 0 3 HEXDIG, Ch 58 58,
        Rep 0 3 h16_colon, h16, Cat dcolon ls32, ha_address2], [Rep 0 3 HEXDIG, Cat dcolon h16,
        ha_address2], [Rep 0 3 HEXDIG, Ch 58 58, Rep 0 4 h16_colon, h16, Cat dcolon h16,
        ha_address2], [Rep 0 3 HEXDIG, dcolon, ha_address2], [Rep 0 3 HEXDIG, Ch 58 58, Rep 0 5
        h16_colon, h16, dcolon, ha_address2]]]])
      else
      if s = 356 then ([-128, 46, 47, 48, 54, 58, 59, 65, 71, 97, 103], [[[[Cat (Ch 46 46) (Cat
        dec_octet (Cat (Ch 46 46) (Cat dec_octet (Cat (Ch 46 46) dec_octet)))), Ch 32 32], [Ch 48
        53, Cat (Ch 46 46) (Cat dec_octet (Cat (Ch 46 46) (Cat dec_octet (Cat (Ch 46 46)
        dec_octet)))), Ch 32 32]], [[Rep 0 2 HEXDIG, Ch 58 58, Rep 5 5 h16_colon, ls32, Ch 32 32],
        [Rep 0 2 HEXDIG, Cat dcolon (Cat (Rep 4 4 h16_colon) ls32), Ch 32 32], [Rep 0 2 HEXDIG,
        Cat dcolon (Cat (Rep 3 3 h16_colon) ls32), Ch 32 32], [Rep 0 2 HEXDIG, Ch 58 58, h16, Cat
        dcolon (Cat (Rep 3 3 h16_colon) ls32), Ch 32 32], [Rep 0 2 HEXDIG, Cat dcolon (Cat (Rep 2
        2 h16_colon) ls32), Ch 32 32], [Rep 0 2 HEXDIG, Ch 58 58, Rep 0 1 h16_colon, h16, Cat
        dcolon (Cat (Rep 2 2 h16_colon) ls32), Ch 32 32], [Rep 0 2 HEXDIG, Cat dcolon (Cat
        h16_colon ls32), Ch 32 32], [Rep 0 2 HEXDIG, Ch 58 58, Rep 0 2 h16_colon, h16, Cat dcolon
        (Cat h16_colon ls32), Ch 32 32], [Rep 0 2 HEXDIG, Cat dcolon ls32, Ch 32 32], [Rep 0 2
        HEXDIG, Ch 58 58, Rep 0 3 h16_colon, h16, Cat dcolon ls32, Ch 32 32], [Rep 0 2 HEXDIG, Cat
        dcolon h16, Ch 32 32], [Rep 0 2 HEXDIG, Ch 58 58, Rep 0 4 h16_colon, h16, Cat dcolon h16,
        Ch 32 32], [Rep 0 2 HEXDIG, dcolon, Ch 32 32], [Rep 0 2 HEXDIG, Ch 58 58, Rep 0 5
        h16_colon, h16, dcolon, Ch 32 32]], [[Cat (Ch 46 46) (Cat dec_octet (Cat (Ch 46 46) (Cat
        dec_octet (Cat (Ch 46 46) dec_octet)))), ha_to_port], [Ch 48 53, Cat (Ch 46 46) (Cat
        dec_octet (Cat (Ch 46 46) (Cat dec_octet (Cat (Ch 46 46) dec_octet)))), ha_to_port], [Rep
        0 2 HEXDIG, Ch 58 58, Rep 5 5 h16_colon, ls32, ha_to_port], [Rep 0 2 HEXDIG, Cat dcolon
        (Cat (Rep 4 4 h16_colon) ls32), ha_to_port], [Rep 0 2 HEXDIG, Cat dcolon (Cat (Rep 3 3
        h16_colon) ls32), ha_to_port], [Rep 0 2 HEXDIG, Ch 58 58, h16, Cat dcolon (Cat (Rep 3 3
        h16_colon) ls32), ha_to_port], [Rep 0 2 HEXDIG, Cat dcolon (Cat (Rep 2 2 h16_colon) ls32),
        ha_to_port], [Rep 0 2 HEXDIG, Ch 58 58, Rep 0 1 h16_colon, h16, Cat dcolon (Cat (Rep 2 2
        h16_colon) ls32), ha_to_port], [Rep 0 2 HEXDIG, Cat dcolon (Cat h16_colon ls32),
        ha_to_port], [Rep 0 2 HEXDIG, Ch 58 58, Rep 0 2 h16_colon, h16, Cat dcolon (Cat h16_colon
        ls32), ha_to_port], [Rep 0 2 HEXDIG, Cat dcolon ls32, ha_to_port], [Rep 0 2 HEXDIG, Ch 58
        58, Rep 0 3 h16_colon, h16, Cat dcolon ls32, ha_to_port], [Rep 0 2 HEXDIG, Cat dcolon h16,
        ha_to_port], [Rep 0 2 HEXDIG, Ch 58 58, Rep 0 4 h16_colon, h16, Cat dcolon h16,
        ha_to_port], [Rep 0 2 HEXDIG, dcolon, ha_to_port], [Rep 0 2 HEXDIG, Ch 58 58, Rep 0 5
        h16_colon, h16, dcolon, ha_to_port]], [[Cat (Ch 46 46) (Cat dec_octet (Cat (Ch 46 46) (Cat
        dec_octet (Cat (Ch 46 46) dec_octet)))), ha_to_end], [Ch 48 53, Cat (Ch 46 46) (Cat
        dec_octet (Cat (Ch 46 46) (Cat dec_octet (Cat (Ch 46 46) dec_octet)))), ha_to_end], [Rep 0
        2 HEXDIG, Ch 58 58, Rep 5 5 h16_colon, ls32, ha_to_end], [Rep 0 2 HEXDIG, Cat dcolon (Cat
        (Rep 4 4 h16_colon) ls32), ha_to_end], [Rep 0 2 HEXDIG, Cat dcolon (Cat (Rep 3 3
        h16_colon) ls32), ha_to_end], [Rep 0 2 HEXDIG, Ch 58 58, h16, Cat dcolon (Cat (Rep 3 3
        h16_colon) ls32), ha_to_end], [Rep 0 2 HEXDIG, Cat dcolon (Cat (Rep 2 2 h16_colon) ls32),
        ha_to_end], [Rep 0 2 HEXDIG, Ch 58 58, Rep 0 1 h16_colon, h16, Cat dcolon (Cat (Rep 2 2
        h16_colon) ls32), ha_to_end], [Rep 0 2 HEXDIG, Cat dcolon (Cat h16_colon ls32),
        ha_to_end], [Rep 0 2 HEXDIG, Ch 58 58, Rep 0 2 h16_colon, h16, Cat dcolon (Cat h16_colon
        ls32), ha_to_end], [Rep 0 2 HEXDIG, Cat dcolon ls32, ha_to_end], [Rep 0 2 HEXDIG, Ch 58
        58, Rep 0 3 h16_colon, h16, Cat dcolon ls32, ha_to_end], [Rep 0 2 HEXDIG, Cat dcolon h16,
        ha_to_end], [Rep 0 2 HEXDIG, Ch 58 58, Rep 0 4 h16_colon, h16, Cat dcolon h16, ha_to_end],
        [Rep 0 2 HEXDIG, dcolon, ha_to_end], [Rep 0 2 HEXDIG, Ch 58 58, Rep 0 5 h16_colon, h16,
        dcolon, ha_to_end]], [], [[Cat (Ch 46 46) (Cat dec_octet (Cat (Ch 46 46) (Cat dec_octet
        (Cat (Ch 46 46) dec_octet)))), ha_address2], [Ch 48 53, Cat (Ch 46 46) (Cat dec_octet (Cat
        (Ch 46 46) (Cat dec_octet (Cat (Ch 46 46) dec_octet)))), ha_address2], [Rep 0 2 HEXDIG, Ch
        58 58, Rep 5 5 h16_colon, ls32, ha_address2], [Rep 0 2 HEXDIG, Cat dcolon (Cat (Rep 4 4
        h16_colon) ls32), ha_address2], [Rep 0 2 HEXDIG, Cat dcolon (Cat (Rep 3 3 h16_colon)
        ls32), ha_address2], [Rep 0 2 HEXDIG, Ch 58 58, h16, Cat dcolon (Cat (Rep 3 3 h16_colon)
        ls32), ha_address2], [Rep 0 2 HEXDIG, Cat dcolon (Cat (Rep 2 2 h16_colon) ls32),
        ha_address2], [Rep 0 2 HEXDIG, Ch 58 58, Rep 0 1 h16_colon, h16, Cat dcolon (Cat (Rep 2 2
        h16_colon) ls32), ha_address2], [Rep 0 2 HEXDIG, Cat dcolon (Cat h16_colon ls32),
        ha_address2], [Rep 0 2 HEXDIG, Ch 58 58, Rep 0 2 h16_colon, h16, Cat dcolon (Cat h16_colon
        ls32), ha_address2], [Rep 0 2 HEXDIG, Cat dcolon ls32, ha_address2], [Rep 0 2 HEXDIG, Ch
        58 58, Rep 0 3 h16_colon, h16, Cat dcolon ls32, ha_address2], [Rep 0 2 HEXDIG, Cat dcolon
        h16, ha_address2], [Rep 0 2 HEXDIG, Ch 58 58, Rep 0 4 h16_colon, h16, Cat dcolon h16,
        ha_address2], [Rep 0 2 HEXDIG, dcolon, ha_address2], [Rep 0 2 HEXDIG, Ch 58 58, Rep 0 5
        h16_colon, h16, dcolon, ha_address2]]]])
      else
      if s = 357 then ([-128, 46, 47, 48, 58, 59, 65, 71, 97, 103], [[[[Cat (Ch 46 46) (Cat
        dec_octet (Cat (Ch 46 46) (Cat dec_octet (Cat (Ch 46 46) dec_octet)))), Ch 32 32]], [[Rep
        0 2 HEXDIG, Ch 58 58, Rep 5 5 h16_colon, ls32, Ch 32 32], [Rep 0 2 HEXDIG, Cat dcolon (Cat
        (Rep 4 4 h16_colon) ls32), Ch 32 32], [Rep 0 2 HEXDIG, Cat dcolon (Cat (Rep 3 3 h16_colon)
        ls32), Ch 32 32], [Rep 0 2 HEXDIG, Ch 58 58, h16, Cat dcolon (Cat (Rep 3 3 h16_colon)
        ls32), Ch 32 32], [Rep 0 2 HEXDIG, Cat dcolon (Cat (Rep 2 2 h16_colon) ls32), Ch 32 32],
        [Rep 0 2 HEXDIG, Ch 58 58, Rep 0 1 h16_colon, h16, Cat dcolon (Cat (Rep 2 2 h16_colon)
        ls32), Ch 32 32], [Rep 0 2 HEXDIG, Cat dcolon (Cat h16_colon ls32), Ch 32 32], [Rep 0 2
        HEXDIG, Ch 58 58, Rep 0 2 h16_colon, h16, Cat dcolon (Cat h16_colon ls32), Ch 32 32], [Rep
        0 2 HEXDIG, Cat dcolon ls32, Ch 32 32], [Rep 0 2 HEXDIG, Ch 58 58, Rep 0 3 h16_colon, h16,
        Cat dcolon ls32, Ch 32 32], [Rep 0 2 HEXDIG, Cat dcolon h16, Ch 32 32], [Rep 0 2 HEXDIG,
        Ch 58 58, Rep 0 4 h16_colon, h16, Cat dcolon h16, Ch 32 32], [Rep 0 2 HEXDIG, dcolon, Ch
        32 32], [Rep 0 2 HEXDIG, Ch 58 58, Rep 0 5 h16_colon, h16, dcolon, Ch 32 32]], [[Cat (Ch
        46 46) (Cat dec_octet (Cat (Ch 46 46) (Cat dec_octet (Cat (Ch 46 46) dec_octet)))),
        ha_to_port], [Rep 0 2 HEXDIG, Ch 58 58, Rep 5 5 h16_colon, ls32, ha_to_port], [Rep 0 2
        HEXDIG, Cat dcolon (Cat (Rep 4 4 h16_colon) ls32), ha_to_port], [Rep 0 2 HEXDIG, Cat
        dcolon (Cat (Rep 3 3 h16_colon) ls32), ha_to_port], [Rep 0 2 HEXDIG, Ch 58 58, h16, Cat
        dcolon (Cat (Rep 3 3 h16_colon) ls32), ha_to_port], [Rep 0 2 HEXDIG, Cat dcolon (Cat (Rep
        2 2 h16_colon) ls32), ha_to_port], [Rep 0 2 HEXDIG, Ch 58 58, Rep 0 1 h16_colon, h16, Cat
        dcolon (Cat (Rep 2 2 h16_colon) ls32), ha_to_port], [Rep 0 2 HEXDIG, Cat dcolon (Cat
        h16_colon ls32), ha_to_port], [Rep 0 2 HEXDIG, Ch 58 58, Rep 0 2 h16_colon, h16, Cat
        dcolon (Cat h16_colon ls32), ha_to_port], [Rep 0 2 HEXDIG, Cat dcolon ls32, ha_to_port],
        [Rep 0 2 HEXDIG, Ch 58 58, Rep 0 3 h16_colon, h16, Cat dcolon ls32, ha_to_port], [Rep 0 2
        HEXDIG, Cat dcolon h16, ha_to_port], [Rep 0 2 HEXDIG, Ch 58 58, Rep 0 4 h16_colon, h16,
        Cat dcolon h16, ha_to_port], [Rep 0 2 HEXDIG, dcolon, ha_to_port], [Rep 0 2 HEXDIG, Ch 58
        58, Rep 0 5 h16_colon, h16, dcolon, ha_to_port]], [[Cat (Ch 46 46) (Cat dec_octet (Cat (Ch
        46 46) (Cat dec_octet (Cat (Ch 46 46) dec_octet)))), ha_to_end], [Rep 0 2 HEXDIG, Ch 58
        58, Rep 5 5 h16_colon, ls32, ha_to_end], [Rep 0 2 HEXDIG, Cat dcolon (Cat (Rep 4 4
        h16_colon) ls32), ha_to_end], [Rep 0 2 HEXDIG, Cat dcolon (Cat (Rep 3 3 h16_colon) ls32),
        ha_to_end], [Rep 0 2 HEXDIG, Ch 58 58, h16, Cat dcolon (Cat (Rep 3 3 h16_colon) ls32),
        ha_to_end], [Rep 0 2 HEXDIG, Cat dcolon (Cat (Rep 2 2 h16_colon) ls32), ha_to_end], [Rep 0
        2 HEXDIG, Ch 58 58, Rep 0 1 h16_colon, h16, Cat dcolon (Cat (Rep 2 2 h16_colon) ls32),
        ha_to_end], [Rep 0 2 HEXDIG, Cat dcolon (Cat h16_colon ls32), ha_to_end], [Rep 0 2 HEXDIG,
        Ch 58 58, Rep 0 2 h16_colon, h16, Cat dcolon (Cat h16_colon ls32), ha_to_end], [Rep 0 2
        HEXDIG, Cat dcolon ls32, ha_to_end], [Rep 0 2 HEXDIG, Ch 58 58, Rep 0 3 h16_colon, h16,
        Cat dcolon ls32, ha_to_end], [Rep 0 2 HEXDIG, Cat dcolon h16, ha_to_end], [Rep 0 2 HEXDIG,
        Ch 58 58, Rep 0 4 h16_colon, h16, Cat dcolon h16, ha_to_end], [Rep 0 2 HEXDIG, dcolon,
        ha_to_end], [Rep 0 2 HEXDIG, Ch 58 58, Rep 0 5 h16_colon, h16, dcolon, ha_to_end]], [],
        [[Cat (Ch 46 46) (Cat dec_octet (Cat (Ch 46 46) (Cat dec_octet (Cat (Ch 46 46)
        dec_octet)))), ha_address2], [Rep 0 2 HEXDIG, Ch 58 58, Rep 5 5 h16_colon, ls32,
        ha_address2], [Rep 0 2 HEXDIG, Cat dcolon (Cat (Rep 4 4 h16_colon) ls32), ha_address2],
        [Rep 0 2 HEXDIG, Cat dcolon (Cat (Rep 3 3 h16_colon) ls32), ha_address2], [Rep 0 2 HEXDIG,
        Ch 58 58, h16, Cat dcolon (Cat (Rep 3 3 h16_colon) ls32), ha_address2], [Rep 0 2 HEXDIG,
        Cat dcolon (Cat (Rep 2 2 h16_colon) ls32), ha_address2], [Rep 0 2 HEXDIG, Ch 58 58, Rep 0
        1 h16_colon, h16, Cat dcolon (Cat (Rep 2 2 h16_colon) ls32), ha_address2], [Rep 0 2
        HEXDIG, Cat dcolon (Cat h16_colon ls32), ha_address2], [Rep 0 2 HEXDIG, Ch 58 58, Rep 0 2
        h16_colon, h16, Cat dcolon (Cat h16_colon ls32), ha_address2], [Rep 0 2 HEXDIG, Cat dcolon
        ls32, ha_address2], [Rep 0 2 HEXDIG, Ch 58 58, Rep 0 3 h16_colon, h16, Cat dcolon ls32,
        ha_address2], [Rep 0 2 HEXDIG, Cat dcolon h16, ha_address2], [Rep 0 2 HEXDIG, Ch 58 58,
        Rep 0 4 h16_colon, h16, Cat dcolon h16, ha_address2], [Rep 0 2 HEXDIG, dcolon,
        ha_address2], [Rep 0 2 HEXDIG, Ch 58 58, Rep 0 5 h16_colon, h16, dcolon, ha_address2]]]])
      else
      if s = 358 then ([-128, 46, 47, 48, 58, 59, 65, 71, 97, 103], [[[[Cat (Ch 46 46) (Cat
        dec_octet (Cat (Ch 46 46) (Cat dec_octet (Cat (Ch 46 46) dec_octet)))), Ch 32 32], [DIGIT,
        Cat (Ch 46 46) (Cat dec_octet (Cat (Ch 46 46) (Cat dec_octet (Cat (Ch 46 46)
        dec_octet)))), Ch 32 32]], [[Rep 0 3 HEXDIG, Ch 58 58, Rep 5 5 h16_colon, ls32, Ch 32 32],
        [Rep 0 3 HEXDIG, Cat dcolon (Cat (Rep 4 4 h16_colon) ls32), Ch 32 32], [Rep 0 3 HEXDIG,
        Cat dcolon (Cat (Rep 3 3 h16_colon) ls32), Ch 32 32], [Rep 0 3 HEXDIG, Ch 58 58, h16, Cat
        dcolon (Cat (Rep 3 3 h16_colon) ls32), Ch 32 32], [Rep 0 3 HEXDIG, Cat dcolon (Cat (Rep 2
        2 h16_colon) ls32), Ch 32 32], [Rep 0 3 HEXDIG, Ch 58 58, Rep 0 1 h16_colon, h16, Cat
        dcolon (Cat (Rep 2 2 h16_colon) ls32), Ch 32 32], [Rep 0 3 HEXDIG, Cat dcolon (Cat
        h16_colon ls32), Ch 32 32], [Rep 0 3 HEXDIG, Ch 58 58, Rep 0 2 h16_colon, h16, Cat dcolon
        (Cat h16_colon ls32), Ch 32 32], [Rep 0 3 HEXDIG, Cat dcolon ls32, Ch 32 32], [Rep 0 3
        HEXDIG, Ch 58 58, Rep 0 3 h16_colon, h16, Cat dcolon ls32, Ch 32 32], [Rep 0 3 HEXDIG, Cat
        dcolon h16, Ch 32 32], [Rep 0 3 HEXDIG, Ch 58 58, Rep 0 4 h16_colon, h16, Cat dcolon h16,
        Ch 32 32], [Rep 0 3 HEXDIG, dcolon, Ch 32 32], [Rep 0 3 HEXDIG, Ch 58 58, Rep 0 5
        h16_colon, h16, dcolon, Ch 32 32]], [[Cat (Ch 46 46) (Cat dec_octet (Cat (Ch 46 46) (Cat
        dec_octet (Cat (Ch 46 46) dec_octet)))), ha_to_port], [DIGIT, Cat (Ch 46 46) (Cat
        dec_octet (Cat (Ch 46 46) (Cat dec_octet (Cat (Ch 46 46) dec_octet)))), ha_to_port], [Rep
        0 3 HEXDIG, Ch 58 58, Rep 5 5 h16_colon, ls32, ha_to_port], [Rep 0 3 HEXDIG, Cat dcolon
        (Cat (Rep 4 4 h16_colon) ls32), ha_to_port], [Rep 0 3 HEXDIG, Cat dcolon (Cat (Rep 3 3
        h16_colon) ls32), ha_to_port], [Rep 0 3 HEXDIG, Ch 58 58, h16, Cat dcolon (Cat (Rep 3 3
        h16_colon) ls32), ha_to_port], [Rep 0 3 HEXDIG, Cat dcolon (Cat (Rep 2 2 h16_colon) ls32),
        ha_to_port], [Rep 0 3 HEXDIG, Ch 58 58, Rep 0 1 h16_colon, h16, Cat dcolon (Cat (Rep 2 2
        h16_colon) ls32), ha_to_port], [Rep 0 3 HEXDIG, Cat dcolon (Cat h16_colon ls32),
        ha_to_port], [Rep 0 3 HEXDIG, Ch 58 58, Rep 0 2 h16_colon, h16, Cat dcolon (Cat h16_colon
        ls32), ha_to_port], [Rep 0 3 HEXDIG, Cat dcolon ls32, ha_to_port], [Rep 0 3 HEXDIG, Ch 58
        58, Rep 0 3 h16_colon, h16, Cat dcolon ls32, ha_to_port], [Rep 0 3 HEXDIG, Cat dcolon h16,
        ha_to_port], [Rep 0 3 HEXDIG, Ch 58 58, Rep 0 4 h16_colon, h16, Cat dcolon h16,
        ha_to_port], [Rep 0 3 HEXDIG, dcolon, ha_to_port], [Rep 0 3 HEXDIG, Ch 58 58, Rep 0 5
        h16_colon, h16, dcolon, ha_to_port]], [[Cat (Ch 46 46) (Cat dec_octet (Cat (Ch 46 46) (Cat
        dec_octet (Cat (Ch 46 46) dec_octet)))), ha_to_end], [DIGIT, Cat (Ch 46 46) (Cat dec_octet
        (Cat (Ch 46 46) (Cat dec_octet (Cat (Ch 46 46) dec_octet)))), ha_to_end], [Rep 0 3 HEXDIG,
        Ch 58 58, Rep 5 5 h16_colon, ls32, ha_to_end], [Rep 0 3 HEXDIG, Cat dcolon (Cat (Rep 4 4
        h16_colon) ls32), ha_to_end], [Rep 0 3 HEXDIG, Cat dcolon (Cat (Rep 3 3 h16_colon) ls32),
        ha_to_end], [Rep 0 3 HEXDIG, Ch 58 58, h16, Cat dcolon (Cat (Rep 3 3 h16_colon) ls32),
        ha_to_end], [Rep 0 3 HEXDIG, Cat dcolon (Cat (Rep 2 2 h16_colon) ls32), ha_to_end], [Rep 0
        3 HEXDIG, Ch 58 58, Rep 0 1 h16_colon, h16, Cat dcolon (Cat (Rep 2 2 h16_colon) ls32),
        ha_to_end], [Rep 0 3 HEXDIG, Cat dcolon (Cat h16_colon ls32), ha_to_end], [Rep 0 3 HEXDIG,
        Ch 58 58, Rep 0 2 h16_colon, h16, Cat dcolon (Cat h16_colon ls32), ha_to_end], [Rep 0 3
        HEXDIG, Cat dcolon ls32, ha_to_end], [Rep 0 3 HEXDIG, Ch 58 58, Rep 0 3 h16_colon, h16,
        Cat dcolon ls32, ha_to_end], [Rep 0 3 HEXDIG, Cat dcolon h16, ha_to_end], [Rep 0 3 HEXDIG,
        Ch 58 58, Rep 0 4 h16_colon, h16, Cat dcolon h16, ha_to_end], [Rep 0 3 HEXDIG, dcolon,
        ha_to_end], [Rep 0 3 HEXDIG, Ch 58 58, Rep 0 5 h16_colon, h16, dcolon, ha_to_end]], [],
        [[Cat (Ch 46 46) (Cat dec_octet (Cat (Ch 46 46) (Cat dec_octet (Cat (Ch 46 46)
        dec_octet)))), ha_address2], [DIGIT, Cat (Ch 46 46) (Cat dec_octet (Cat (Ch 46 46) (Cat
        dec_octet (Cat (Ch 46 46) dec_octet)))), ha_address2], [Rep 0 3 HEXDIG, Ch 58 58, Rep 5 5
        h16_colon, ls32, ha_address2], [Rep 0 3 HEXDIG, Cat dcolon (Cat (Rep 4 4 h16_colon) ls32),
        ha_address2], [Rep 0 3 HEXDIG, Cat dcolon (Cat (Rep 3 3 h16_colon) ls32), ha_address2],
        [Rep 0 3 HEXDIG, Ch 58 58, h16, Cat dcolon (Cat (Rep 3 3 h16_colon) ls32), ha_address2],
        [Rep 0 3 HEXDIG, Cat dcolon (Cat (Rep 2 2 h16_colon) ls32), ha_address2], [Rep 0 3 HEXDIG,
        Ch 58 58, Rep 0 1 h16_colon, h16, Cat dcolon (Cat (Rep 2 2 h16_colon) ls32), ha_address2],
        [Rep 0 3 HEXDIG, Cat dcolon (Cat h16_colon ls32), ha_address2], [Rep 0 3 HEXDIG, Ch 58 58,
        Rep 0 2 h16_colon, h16, Cat dcolon (Cat h16_colon ls32), ha_address2], [Rep 0 3 HEXDIG,
        Cat dcolon ls32, ha_address2], [Rep 0 3 HEXDIG, Ch 58 58, Rep 0 3 h16_colon, h16, Cat
        dcolon ls32, ha_address2], [Rep 0 3 HEXDIG, Cat dcolon h16, ha_address2], [Rep 0 3 HEXDIG,
        Ch 58 58, Rep 0 4 h16_colon, h16, Cat dcolon h16, ha_address2], [Rep 0 3 HEXDIG, dcolon,
        ha_address2], [Rep 0 3 HEXDIG, Ch 58 58, Rep 0 5 h16_colon, h16, dcolon, ha_address2]]]])
      else
      if s = 359 then ([-128, 58, 59], [[[], [[Ch 58 58, Cat (Rep 5 5 h16_colon) ls32, Ch 32 32],
        [Ch 58 58, Cat (Rep 4 4 h16_colon) ls32, Ch 32 32], [Ch 58 58, Cat (Rep 3 3 h16_colon)
        ls32, Ch 32 32], [Ch 58 58, Cat (Rep 2 2 h16_colon) ls32, Ch 32 32], [Ch 58 58, Cat
        h16_colon ls32, Ch 32 32], [Ch 58 58, ls32, Ch 32 32], [Ch 58 58, h16, Ch 32 32], [Ch 58
        58, Ch 32 32]], [[Ch 58 58, Cat (Rep 5 5 h16_colon) ls32, ha_to_port], [Ch 58 58, Cat (Rep
        4 4 h16_colon) ls32, ha_to_port], [Ch 58 58, Cat (Rep 3 3 h16_colon) ls32, ha_to_port],
        [Ch 58 58, Cat (Rep 2 2 h16_colon) ls32, ha_to_port], [Ch 58 58, Cat h16_colon ls32,
        ha_to_port], [Ch 58 58, ls32, ha_to_port], [Ch 58 58, h16, ha_to_port], [Ch 58 58,
        ha_to_port]], [[Ch 58 58, Cat (Rep 5 5 h16_colon) ls32, ha_to_end], [Ch 58 58, Cat (Rep 4
        4 h16_colon) ls32, ha_to_end], [Ch 58 58, Cat (Rep 3 3 h16_colon) ls32, ha_to_end], [Ch 58
        58, Cat (Rep 2 2 h16_colon) ls32, ha_to_end], [Ch 58 58, Cat h16_colon ls32, ha_to_end],
        [Ch 58 58, ls32, ha_to_end], [Ch 58 58, h16, ha_to_end], [Ch 58 58, ha_to_end]], [], [[Ch
        58 58, Cat (Rep 5 5 h16_colon) ls32, ha_address2], [Ch 58 58, Cat (Rep 4 4 h16_colon)
        ls32, ha_address2], [Ch 58 58, Cat (Rep 3 3 h16_colon) ls32, ha_address2], [Ch 58 58, Cat
        (Rep 2 2 h16_colon) ls32, ha_address2], [Ch 58 58, Cat h16_colon ls32, ha_address2], [Ch
        58 58, ls32, ha_address2], [Ch 58 58, h16, ha_address2], [Ch 58 58, ha_address2]]]])
      else
      ([-128, 32, 33, 48, 49, 50, 51, 58, 65, 71, 97, 103], [[[], [[Cat (Rep 5 5 h16_colon) ls32,
        Ch 32 32], [Cat (Rep 4 4 h16_colon) ls32, Ch 32 32], [Cat (Rep 3 3 h16_colon) ls32, Ch 32
        32], [Cat (Rep 2 2 h16_colon) ls32, Ch 32 32], [Cat h16_colon ls32, Ch 32 32], [ls32, Ch
        32 32], [h16, Ch 32 32], [Ch 32 32]], [[Cat (Rep 5 5 h16_colon) ls32, ha_to_port], [Cat
        (Rep 4 4 h16_colon) ls32, ha_to_port], [Cat (Rep 3 3 h16_colon) ls32, ha_to_port], [Cat
        (Rep 2 2 h16_colon) ls32, ha_to_port], [Cat h16_colon ls32, ha_to_port], [ls32,
        ha_to_port], [h16, ha_to_port], [ha_to_port]], [[Cat (Rep 5 5 h16_colon) ls32, ha_to_end],
        [Cat (Rep 4 4 h16_colon) ls32, ha_to_end], [Cat (Rep 3 3 h16_colon) ls32, ha_to_end], [Cat
        (Rep 2 2 h16_colon) ls32, ha_to_end], [Cat h16_colon ls32, ha_to_end], [ls32, ha_to_end],
        [h16, ha_to_end], [ha_to_end]], [], [[Cat (Rep 5 5 h16_colon) ls32, ha_address2], [Cat
        (Rep 4 4 h16_colon) ls32, ha_address2], [Cat (Rep 3 3 h16_colon) ls32, ha_address2], [Cat
        (Rep 2 2 h16_colon) ls32, ha_address2], [Cat h16_colon ls32, ha_address2], [ls32,
        ha_address2], [h16, ha_address2], [ha_address2]]]]))"

definition ha_expects_46 :: certificate where
  "ha_expects_46 s =
     (if s = 361 then ([-128, 32, 33, 46, 47, 48, 58, 59, 65, 71, 97, 103], [[[], [[Rep 0 3
        HEXDIG, Ch 58 58, Rep 4 4 h16_colon, ls32, Ch 32 32], [Rep 0 3 HEXDIG, Ch 58 58, Rep 3 3
        h16_colon, ls32, Ch 32 32], [Rep 0 3 HEXDIG, Ch 58 58, Rep 2 2 h16_colon, ls32, Ch 32 32],
        [Rep 0 3 HEXDIG, Ch 58 58, h16_colon, ls32, Ch 32 32], [Rep 0 3 HEXDIG, Ch 58 58, ls32, Ch
        32 32], [Rep 0 3 HEXDIG, Cat (Ch 58 58) h16, Ch 32 32], [Cat (Ch 46 46) (Cat dec_octet
        (Cat (Ch 46 46) (Cat dec_octet (Cat (Ch 46 46) dec_octet)))), Ch 32 32], [Rep 0 3 HEXDIG,
        Ch 32 32]], [[Rep 0 3 HEXDIG, Ch 58 58, Rep 4 4 h16_colon, ls32, ha_to_port], [Rep 0 3
        HEXDIG, Ch 58 58, Rep 3 3 h16_colon, ls32, ha_to_port], [Rep 0 3 HEXDIG, Ch 58 58, Rep 2 2
        h16_colon, ls32, ha_to_port], [Rep 0 3 HEXDIG, Ch 58 58, h16_colon, ls32, ha_to_port],
        [Rep 0 3 HEXDIG, Ch 58 58, ls32, ha_to_port], [Rep 0 3 HEXDIG, Cat (Ch 58 58) h16,
        ha_to_port], [Cat (Ch 46 46) (Cat dec_octet (Cat (Ch 46 46) (Cat dec_octet (Cat (Ch 46 46)
        dec_octet)))), ha_to_port], [Rep 0 3 HEXDIG, ha_to_port]], [[Rep 0 3 HEXDIG, Ch 58 58, Rep
        4 4 h16_colon, ls32, ha_to_end], [Rep 0 3 HEXDIG, Ch 58 58, Rep 3 3 h16_colon, ls32,
        ha_to_end], [Rep 0 3 HEXDIG, Ch 58 58, Rep 2 2 h16_colon, ls32, ha_to_end], [Rep 0 3
        HEXDIG, Ch 58 58, h16_colon, ls32, ha_to_end], [Rep 0 3 HEXDIG, Ch 58 58, ls32,
        ha_to_end], [Rep 0 3 HEXDIG, Cat (Ch 58 58) h16, ha_to_end], [Cat (Ch 46 46) (Cat
        dec_octet (Cat (Ch 46 46) (Cat dec_octet (Cat (Ch 46 46) dec_octet)))), ha_to_end], [Rep 0
        3 HEXDIG, ha_to_end]], [], [[Rep 0 3 HEXDIG, Ch 58 58, Rep 4 4 h16_colon, ls32,
        ha_address2], [Rep 0 3 HEXDIG, Ch 58 58, Rep 3 3 h16_colon, ls32, ha_address2], [Rep 0 3
        HEXDIG, Ch 58 58, Rep 2 2 h16_colon, ls32, ha_address2], [Rep 0 3 HEXDIG, Ch 58 58,
        h16_colon, ls32, ha_address2], [Rep 0 3 HEXDIG, Ch 58 58, ls32, ha_address2], [Rep 0 3
        HEXDIG, Cat (Ch 58 58) h16, ha_address2], [Cat (Ch 46 46) (Cat dec_octet (Cat (Ch 46 46)
        (Cat dec_octet (Cat (Ch 46 46) dec_octet)))), ha_address2], [Rep 0 3 HEXDIG,
        ha_address2]]]])
      else
      if s = 362 then ([-128, 32, 33, 48, 58, 59, 65, 71, 97, 103], [[[], [[Rep 0 2 HEXDIG, Ch 58
        58, Rep 4 4 h16_colon, ls32, Ch 32 32], [Rep 0 2 HEXDIG, Ch 58 58, Rep 3 3 h16_colon,
        ls32, Ch 32 32], [Rep 0 2 HEXDIG, Ch 58 58, Rep 2 2 h16_colon, ls32, Ch 32 32], [Rep 0 2
        HEXDIG, Ch 58 58, h16_colon, ls32, Ch 32 32], [Rep 0 2 HEXDIG, Ch 58 58, ls32, Ch 32 32],
        [Rep 0 2 HEXDIG, Cat (Ch 58 58) h16, Ch 32 32], [Rep 0 2 HEXDIG, Ch 32 32]], [[Rep 0 2
        HEXDIG, Ch 58 58, Rep 4 4 h16_colon, ls32, ha_to_port], [Rep 0 2 HEXDIG, Ch 58 58, Rep 3 3
        h16_colon, ls32, ha_to_port], [Rep 0 2 HEXDIG, Ch 58 58, Rep 2 2 h16_colon, ls32,
        ha_to_port], [Rep 0 2 HEXDIG, Ch 58 58, h16_colon, ls32, ha_to_port], [Rep 0 2 HEXDIG, Ch
        58 58, ls32, ha_to_port], [Rep 0 2 HEXDIG, Cat (Ch 58 58) h16, ha_to_port], [Rep 0 2
        HEXDIG, ha_to_port]], [[Rep 0 2 HEXDIG, Ch 58 58, Rep 4 4 h16_colon, ls32, ha_to_end],
        [Rep 0 2 HEXDIG, Ch 58 58, Rep 3 3 h16_colon, ls32, ha_to_end], [Rep 0 2 HEXDIG, Ch 58 58,
        Rep 2 2 h16_colon, ls32, ha_to_end], [Rep 0 2 HEXDIG, Ch 58 58, h16_colon, ls32,
        ha_to_end], [Rep 0 2 HEXDIG, Ch 58 58, ls32, ha_to_end], [Rep 0 2 HEXDIG, Cat (Ch 58 58)
        h16, ha_to_end], [Rep 0 2 HEXDIG, ha_to_end]], [], [[Rep 0 2 HEXDIG, Ch 58 58, Rep 4 4
        h16_colon, ls32, ha_address2], [Rep 0 2 HEXDIG, Ch 58 58, Rep 3 3 h16_colon, ls32,
        ha_address2], [Rep 0 2 HEXDIG, Ch 58 58, Rep 2 2 h16_colon, ls32, ha_address2], [Rep 0 2
        HEXDIG, Ch 58 58, h16_colon, ls32, ha_address2], [Rep 0 2 HEXDIG, Ch 58 58, ls32,
        ha_address2], [Rep 0 2 HEXDIG, Cat (Ch 58 58) h16, ha_address2], [Rep 0 2 HEXDIG,
        ha_address2]]]])
      else
      if s = 363 then ([-128, 32, 33, 48, 58, 59, 65, 71, 97, 103], [[[], [[Rep 0 1 HEXDIG, Ch 58
        58, Rep 4 4 h16_colon, ls32, Ch 32 32], [Rep 0 1 HEXDIG, Ch 58 58, Rep 3 3 h16_colon,
        ls32, Ch 32 32], [Rep 0 1 HEXDIG, Ch 58 58, Rep 2 2 h16_colon, ls32, Ch 32 32], [Rep 0 1
        HEXDIG, Ch 58 58, h16_colon, ls32, Ch 32 32], [Rep 0 1 HEXDIG, Ch 58 58, ls32, Ch 32 32],
        [Rep 0 1 HEXDIG, Cat (Ch 58 58) h16, Ch 32 32], [Rep 0 1 HEXDIG, Ch 32 32]], [[Rep 0 1
        HEXDIG, Ch 58 58, Rep 4 4 h16_colon, ls32, ha_to_port], [Rep 0 1 HEXDIG, Ch 58 58, Rep 3 3
        h16_colon, ls32, ha_to_port], [Rep 0 1 HEXDIG, Ch 58 58, Rep 2 2 h16_colon, ls32,
        ha_to_port], [Rep 0 1 HEXDIG, Ch 58 58, h16_colon, ls32, ha_to_port], [Rep 0 1 HEXDIG, Ch
        58 58, ls32, ha_to_port], [Rep 0 1 HEXDIG, Cat (Ch 58 58) h16, ha_to_port], [Rep 0 1
        HEXDIG, ha_to_port]], [[Rep 0 1 HEXDIG, Ch 58 58, Rep 4 4 h16_colon, ls32, ha_to_end],
        [Rep 0 1 HEXDIG, Ch 58 58, Rep 3 3 h16_colon, ls32, ha_to_end], [Rep 0 1 HEXDIG, Ch 58 58,
        Rep 2 2 h16_colon, ls32, ha_to_end], [Rep 0 1 HEXDIG, Ch 58 58, h16_colon, ls32,
        ha_to_end], [Rep 0 1 HEXDIG, Ch 58 58, ls32, ha_to_end], [Rep 0 1 HEXDIG, Cat (Ch 58 58)
        h16, ha_to_end], [Rep 0 1 HEXDIG, ha_to_end]], [], [[Rep 0 1 HEXDIG, Ch 58 58, Rep 4 4
        h16_colon, ls32, ha_address2], [Rep 0 1 HEXDIG, Ch 58 58, Rep 3 3 h16_colon, ls32,
        ha_address2], [Rep 0 1 HEXDIG, Ch 58 58, Rep 2 2 h16_colon, ls32, ha_address2], [Rep 0 1
        HEXDIG, Ch 58 58, h16_colon, ls32, ha_address2], [Rep 0 1 HEXDIG, Ch 58 58, ls32,
        ha_address2], [Rep 0 1 HEXDIG, Cat (Ch 58 58) h16, ha_address2], [Rep 0 1 HEXDIG,
        ha_address2]]]])
      else
      if s = 364 then ([-128, 32, 33, 58, 59], [[[], [[Ch 58 58, Rep 4 4 h16_colon, ls32, Ch 32
        32], [Ch 58 58, Rep 3 3 h16_colon, ls32, Ch 32 32], [Ch 58 58, Rep 2 2 h16_colon, ls32, Ch
        32 32], [Ch 58 58, h16_colon, ls32, Ch 32 32], [Ch 58 58, ls32, Ch 32 32], [Cat (Ch 58 58)
        h16, Ch 32 32], [Ch 32 32]], [[Ch 58 58, Rep 4 4 h16_colon, ls32, ha_to_port], [Ch 58 58,
        Rep 3 3 h16_colon, ls32, ha_to_port], [Ch 58 58, Rep 2 2 h16_colon, ls32, ha_to_port], [Ch
        58 58, h16_colon, ls32, ha_to_port], [Ch 58 58, ls32, ha_to_port], [Cat (Ch 58 58) h16,
        ha_to_port], [ha_to_port]], [[Ch 58 58, Rep 4 4 h16_colon, ls32, ha_to_end], [Ch 58 58,
        Rep 3 3 h16_colon, ls32, ha_to_end], [Ch 58 58, Rep 2 2 h16_colon, ls32, ha_to_end], [Ch
        58 58, h16_colon, ls32, ha_to_end], [Ch 58 58, ls32, ha_to_end], [Cat (Ch 58 58) h16,
        ha_to_end], [ha_to_end]], [], [[Ch 58 58, Rep 4 4 h16_colon, ls32, ha_address2], [Ch 58
        58, Rep 3 3 h16_colon, ls32, ha_address2], [Ch 58 58, Rep 2 2 h16_colon, ls32,
        ha_address2], [Ch 58 58, h16_colon, ls32, ha_address2], [Ch 58 58, ls32, ha_address2],
        [Cat (Ch 58 58) h16, ha_address2], [ha_address2]]]])
      else
      if s = 365 then ([-128, 48, 49, 50, 51, 58, 65, 71, 97, 103], [[[], [[Rep 4 4 h16_colon,
        ls32, Ch 32 32], [Rep 3 3 h16_colon, ls32, Ch 32 32], [Rep 2 2 h16_colon, ls32, Ch 32 32],
        [h16_colon, ls32, Ch 32 32], [ls32, Ch 32 32], [h16, Ch 32 32]], [[Rep 4 4 h16_colon,
        ls32, ha_to_port], [Rep 3 3 h16_colon, ls32, ha_to_port], [Rep 2 2 h16_colon, ls32,
        ha_to_port], [h16_colon, ls32, ha_to_port], [ls32, ha_to_port], [h16, ha_to_port]], [[Rep
        4 4 h16_colon, ls32, ha_to_end], [Rep 3 3 h16_colon, ls32, ha_to_end], [Rep 2 2 h16_colon,
        ls32, ha_to_end], [h16_colon, ls32, ha_to_end], [ls32, ha_to_end], [h16, ha_to_end]], [],
        [[Rep 4 4 h16_colon, ls32, ha_address2], [Rep 3 3 h16_colon, ls32, ha_address2], [Rep 2 2
        h16_colon, ls32, ha_address2], [h16_colon, ls32, ha_address2], [ls32, ha_address2], [h16,
        ha_address2]]]])
      else
      if s = 366 then ([-128, 32, 33, 46, 47, 48, 58, 59, 65, 71, 97, 103], [[[], [[Rep 0 3
        HEXDIG, Ch 58 58, Rep 4 4 h16_colon, ls32, Ch 32 32], [Rep 0 3 HEXDIG, Ch 58 58, Rep 3 3
        h16_colon, ls32, Ch 32 32], [Rep 0 3 HEXDIG, Ch 58 58, Rep 2 2 h16_colon, ls32, Ch 32 32],
        [Rep 0 3 HEXDIG, Ch 58 58, h16_colon, ls32, Ch 32 32], [Rep 0 3 HEXDIG, Ch 58 58, ls32, Ch
        32 32], [Rep 0 3 HEXDIG, Cat (Ch 58 58) h16, Ch 32 32], [Cat (Ch 46 46) (Cat dec_octet
        (Cat (Ch 46 46) (Cat dec_octet (Cat (Ch 46 46) dec_octet)))), Ch 32 32], [DIGIT, Cat (Ch
        46 46) (Cat dec_octet (Cat (Ch 46 46) (Cat dec_octet (Cat (Ch 46 46) dec_octet)))), Ch 32
        32], [Rep 2 2 DIGIT, Cat (Ch 46 46) (Cat dec_octet (Cat (Ch 46 46) (Cat dec_octet (Cat (Ch
        46 46) dec_octet)))), Ch 32 32], [Rep 0 3 HEXDIG, Ch 32 32]], [[Rep 0 3 HEXDIG, Ch 58 58,
        Rep 4 4 h16_colon, ls32, ha_to_port], [Rep 0 3 HEXDIG, Ch 58 58, Rep 3 3 h16_colon, ls32,
        ha_to_port], [Rep 0 3 HEXDIG, Ch 58 58, Rep 2 2 h16_colon, ls32, ha_to_port], [Rep 0 3
        HEXDIG, Ch 58 58, h16_colon, ls32, ha_to_port], [Rep 0 3 HEXDIG, Ch 58 58, ls32,
        ha_to_port], [Rep 0 3 HEXDIG, Cat (Ch 58 58) h16, ha_to_port], [Cat (Ch 46 46) (Cat
        dec_octet (Cat (Ch 46 46) (Cat dec_octet (Cat (Ch 46 46) dec_octet)))), ha_to_port],
        [DIGIT, Cat (Ch 46 46) (Cat dec_octet (Cat (Ch 46 46) (Cat dec_octet (Cat (Ch 46 46)
        dec_octet)))), ha_to_port], [Rep 2 2 DIGIT, Cat (Ch 46 46) (Cat dec_octet (Cat (Ch 46 46)
        (Cat dec_octet (Cat (Ch 46 46) dec_octet)))), ha_to_port], [Rep 0 3 HEXDIG, ha_to_port]],
        [[Rep 0 3 HEXDIG, Ch 58 58, Rep 4 4 h16_colon, ls32, ha_to_end], [Rep 0 3 HEXDIG, Ch 58
        58, Rep 3 3 h16_colon, ls32, ha_to_end], [Rep 0 3 HEXDIG, Ch 58 58, Rep 2 2 h16_colon,
        ls32, ha_to_end], [Rep 0 3 HEXDIG, Ch 58 58, h16_colon, ls32, ha_to_end], [Rep 0 3 HEXDIG,
        Ch 58 58, ls32, ha_to_end], [Rep 0 3 HEXDIG, Cat (Ch 58 58) h16, ha_to_end], [Cat (Ch 46
        46) (Cat dec_octet (Cat (Ch 46 46) (Cat dec_octet (Cat (Ch 46 46) dec_octet)))),
        ha_to_end], [DIGIT, Cat (Ch 46 46) (Cat dec_octet (Cat (Ch 46 46) (Cat dec_octet (Cat (Ch
        46 46) dec_octet)))), ha_to_end], [Rep 2 2 DIGIT, Cat (Ch 46 46) (Cat dec_octet (Cat (Ch
        46 46) (Cat dec_octet (Cat (Ch 46 46) dec_octet)))), ha_to_end], [Rep 0 3 HEXDIG,
        ha_to_end]], [], [[Rep 0 3 HEXDIG, Ch 58 58, Rep 4 4 h16_colon, ls32, ha_address2], [Rep 0
        3 HEXDIG, Ch 58 58, Rep 3 3 h16_colon, ls32, ha_address2], [Rep 0 3 HEXDIG, Ch 58 58, Rep
        2 2 h16_colon, ls32, ha_address2], [Rep 0 3 HEXDIG, Ch 58 58, h16_colon, ls32,
        ha_address2], [Rep 0 3 HEXDIG, Ch 58 58, ls32, ha_address2], [Rep 0 3 HEXDIG, Cat (Ch 58
        58) h16, ha_address2], [Cat (Ch 46 46) (Cat dec_octet (Cat (Ch 46 46) (Cat dec_octet (Cat
        (Ch 46 46) dec_octet)))), ha_address2], [DIGIT, Cat (Ch 46 46) (Cat dec_octet (Cat (Ch 46
        46) (Cat dec_octet (Cat (Ch 46 46) dec_octet)))), ha_address2], [Rep 2 2 DIGIT, Cat (Ch 46
        46) (Cat dec_octet (Cat (Ch 46 46) (Cat dec_octet (Cat (Ch 46 46) dec_octet)))),
        ha_address2], [Rep 0 3 HEXDIG, ha_address2]]]])
      else
      if s = 367 then ([-128, 32, 33, 46, 47, 48, 58, 59, 65, 71, 97, 103], [[[], [[Rep 0 2
        HEXDIG, Ch 58 58, Rep 4 4 h16_colon, ls32, Ch 32 32], [Rep 0 2 HEXDIG, Ch 58 58, Rep 3 3
        h16_colon, ls32, Ch 32 32], [Rep 0 2 HEXDIG, Ch 58 58, Rep 2 2 h16_colon, ls32, Ch 32 32],
        [Rep 0 2 HEXDIG, Ch 58 58, h16_colon, ls32, Ch 32 32], [Rep 0 2 HEXDIG, Ch 58 58, ls32, Ch
        32 32], [Rep 0 2 HEXDIG, Cat (Ch 58 58) h16, Ch 32 32], [Cat (Ch 46 46) (Cat dec_octet
        (Cat (Ch 46 46) (Cat dec_octet (Cat (Ch 46 46) dec_octet)))), Ch 32 32], [DIGIT, Cat (Ch
        46 46) (Cat dec_octet (Cat (Ch 46 46) (Cat dec_octet (Cat (Ch 46 46) dec_octet)))), Ch 32
        32], [Rep 0 2 HEXDIG, Ch 32 32]], [[Rep 0 2 HEXDIG, Ch 58 58, Rep 4 4 h16_colon, ls32,
        ha_to_port], [Rep 0 2 HEXDIG, Ch 58 58, Rep 3 3 h16_colon, ls32, ha_to_port], [Rep 0 2
        HEXDIG, Ch 58 58, Rep 2 2 h16_colon, ls32, ha_to_port], [Rep 0 2 HEXDIG, Ch 58 58,
        h16_colon, ls32, ha_to_port], [Rep 0 2 HEXDIG, Ch 58 58, ls32, ha_to_port], [Rep 0 2
        HEXDIG, Cat (Ch 58 58) h16, ha_to_port], [Cat (Ch 46 46) (Cat dec_octet (Cat (Ch 46 46)
        (Cat dec_octet (Cat (Ch 46 46) dec_octet)))), ha_to_port], [DIGIT, Cat (Ch 46 46) (Cat
        dec_octet (Cat (Ch 46 46) (Cat dec_octet (Cat (Ch 46 46) dec_octet)))), ha_to_port], [Rep
        0 2 HEXDIG, ha_to_port]], [[Rep 0 2 HEXDIG, Ch 58 58, Rep 4 4 h16_colon, ls32, ha_to_end],
        [Rep 0 2 HEXDIG, Ch 58 58, Rep 3 3 h16_colon, ls32, ha_to_end], [Rep 0 2 HEXDIG, Ch 58 58,
        Rep 2 2 h16_colon, ls32, ha_to_end], [Rep 0 2 HEXDIG, Ch 58 58, h16_colon, ls32,
        ha_to_end], [Rep 0 2 HEXDIG, Ch 58 58, ls32, ha_to_end], [Rep 0 2 HEXDIG, Cat (Ch 58 58)
        h16, ha_to_end], [Cat (Ch 46 46) (Cat dec_octet (Cat (Ch 46 46) (Cat dec_octet (Cat (Ch 46
        46) dec_octet)))), ha_to_end], [DIGIT, Cat (Ch 46 46) (Cat dec_octet (Cat (Ch 46 46) (Cat
        dec_octet (Cat (Ch 46 46) dec_octet)))), ha_to_end], [Rep 0 2 HEXDIG, ha_to_end]], [],
        [[Rep 0 2 HEXDIG, Ch 58 58, Rep 4 4 h16_colon, ls32, ha_address2], [Rep 0 2 HEXDIG, Ch 58
        58, Rep 3 3 h16_colon, ls32, ha_address2], [Rep 0 2 HEXDIG, Ch 58 58, Rep 2 2 h16_colon,
        ls32, ha_address2], [Rep 0 2 HEXDIG, Ch 58 58, h16_colon, ls32, ha_address2], [Rep 0 2
        HEXDIG, Ch 58 58, ls32, ha_address2], [Rep 0 2 HEXDIG, Cat (Ch 58 58) h16, ha_address2],
        [Cat (Ch 46 46) (Cat dec_octet (Cat (Ch 46 46) (Cat dec_octet (Cat (Ch 46 46)
        dec_octet)))), ha_address2], [DIGIT, Cat (Ch 46 46) (Cat dec_octet (Cat (Ch 46 46) (Cat
        dec_octet (Cat (Ch 46 46) dec_octet)))), ha_address2], [Rep 0 2 HEXDIG, ha_address2]]]])
      else
      ([-128, 32, 33, 46, 47, 48, 58, 59, 65, 71, 97, 103], [[[], [[Rep 0 1 HEXDIG, Ch 58 58, Rep
        4 4 h16_colon, ls32, Ch 32 32], [Rep 0 1 HEXDIG, Ch 58 58, Rep 3 3 h16_colon, ls32, Ch 32
        32], [Rep 0 1 HEXDIG, Ch 58 58, Rep 2 2 h16_colon, ls32, Ch 32 32], [Rep 0 1 HEXDIG, Ch 58
        58, h16_colon, ls32, Ch 32 32], [Rep 0 1 HEXDIG, Ch 58 58, ls32, Ch 32 32], [Rep 0 1
        HEXDIG, Cat (Ch 58 58) h16, Ch 32 32], [Cat (Ch 46 46) (Cat dec_octet (Cat (Ch 46 46) (Cat
        dec_octet (Cat (Ch 46 46) dec_octet)))), Ch 32 32], [Rep 0 1 HEXDIG, Ch 32 32]], [[Rep 0 1
        HEXDIG, Ch 58 58, Rep 4 4 h16_colon, ls32, ha_to_port], [Rep 0 1 HEXDIG, Ch 58 58, Rep 3 3
        h16_colon, ls32, ha_to_port], [Rep 0 1 HEXDIG, Ch 58 58, Rep 2 2 h16_colon, ls32,
        ha_to_port], [Rep 0 1 HEXDIG, Ch 58 58, h16_colon, ls32, ha_to_port], [Rep 0 1 HEXDIG, Ch
        58 58, ls32, ha_to_port], [Rep 0 1 HEXDIG, Cat (Ch 58 58) h16, ha_to_port], [Cat (Ch 46
        46) (Cat dec_octet (Cat (Ch 46 46) (Cat dec_octet (Cat (Ch 46 46) dec_octet)))),
        ha_to_port], [Rep 0 1 HEXDIG, ha_to_port]], [[Rep 0 1 HEXDIG, Ch 58 58, Rep 4 4 h16_colon,
        ls32, ha_to_end], [Rep 0 1 HEXDIG, Ch 58 58, Rep 3 3 h16_colon, ls32, ha_to_end], [Rep 0 1
        HEXDIG, Ch 58 58, Rep 2 2 h16_colon, ls32, ha_to_end], [Rep 0 1 HEXDIG, Ch 58 58,
        h16_colon, ls32, ha_to_end], [Rep 0 1 HEXDIG, Ch 58 58, ls32, ha_to_end], [Rep 0 1 HEXDIG,
        Cat (Ch 58 58) h16, ha_to_end], [Cat (Ch 46 46) (Cat dec_octet (Cat (Ch 46 46) (Cat
        dec_octet (Cat (Ch 46 46) dec_octet)))), ha_to_end], [Rep 0 1 HEXDIG, ha_to_end]], [],
        [[Rep 0 1 HEXDIG, Ch 58 58, Rep 4 4 h16_colon, ls32, ha_address2], [Rep 0 1 HEXDIG, Ch 58
        58, Rep 3 3 h16_colon, ls32, ha_address2], [Rep 0 1 HEXDIG, Ch 58 58, Rep 2 2 h16_colon,
        ls32, ha_address2], [Rep 0 1 HEXDIG, Ch 58 58, h16_colon, ls32, ha_address2], [Rep 0 1
        HEXDIG, Ch 58 58, ls32, ha_address2], [Rep 0 1 HEXDIG, Cat (Ch 58 58) h16, ha_address2],
        [Cat (Ch 46 46) (Cat dec_octet (Cat (Ch 46 46) (Cat dec_octet (Cat (Ch 46 46)
        dec_octet)))), ha_address2], [Rep 0 1 HEXDIG, ha_address2]]]]))"

definition ha_expects_47 :: certificate where
  "ha_expects_47 s =
     (if s = 369 then ([-128, 32, 33, 46, 47, 48, 53, 54, 58, 59, 65, 71, 97, 103], [[[], [[Rep 0
        3 HEXDIG, Ch 58 58, Rep 4 4 h16_colon, ls32, Ch 32 32], [Rep 0 3 HEXDIG, Ch 58 58, Rep 3 3
        h16_colon, ls32, Ch 32 32], [Rep 0 3 HEXDIG, Ch 58 58, Rep 2 2 h16_colon, ls32, Ch 32 32],
        [Rep 0 3 HEXDIG, Ch 58 58, h16_colon, ls32, Ch 32 32], [Rep 0 3 HEXDIG, Ch 58 58, ls32, Ch
        32 32], [Rep 0 3 HEXDIG, Cat (Ch 58 58) h16, Ch 32 32], [Cat (Ch 46 46) (Cat dec_octet
        (Cat (Ch 46 46) (Cat dec_octet (Cat (Ch 46 46) dec_octet)))), Ch 32 32], [DIGIT, Cat (Ch
        46 46) (Cat dec_octet (Cat (Ch 46 46) (Cat dec_octet (Cat (Ch 46 46) dec_octet)))), Ch 32
        32], [Cat (Ch 48 52) DIGIT, Cat (Ch 46 46) (Cat dec_octet (Cat (Ch 46 46) (Cat dec_octet
        (Cat (Ch 46 46) dec_octet)))), Ch 32 32], [Cat (Ch 53 53) (Ch 48 53), Cat (Ch 46 46) (Cat
        dec_octet (Cat (Ch 46 46) (Cat dec_octet (Cat (Ch 46 46) dec_octet)))), Ch 32 32], [Rep 0
        3 HEXDIG, Ch 32 32]], [[Rep 0 3 HEXDIG, Ch 58 58, Rep 4 4 h16_colon, ls32, ha_to_port],
        [Rep 0 3 HEXDIG, Ch 58 58, Rep 3 3 h16_colon, ls32, ha_to_port], [Rep 0 3 HEXDIG, Ch 58
        58, Rep 2 2 h16_colon, ls32, ha_to_port], [Rep 0 3 HEXDIG, Ch 58 58, h16_colon, ls32,
        ha_to_port], [Rep 0 3 HEXDIG, Ch 58 58, ls32, ha_to_port], [Rep 0 3 HEXDIG, Cat (Ch 58 58)
        h16, ha_to_port], [Cat (Ch 46 46) (Cat dec_octet (Cat (Ch 46 46) (Cat dec_octet (Cat (Ch
        46 46) dec_octet)))), ha_to_port], [DIGIT, Cat (Ch 46 46) (Cat dec_octet (Cat (Ch 46 46)
        (Cat dec_octet (Cat (Ch 46 46) dec_octet)))), ha_to_port], [Cat (Ch 48 52) DIGIT, Cat (Ch
        46 46) (Cat dec_octet (Cat (Ch 46 46) (Cat dec_octet (Cat (Ch 46 46) dec_octet)))),
        ha_to_port], [Cat (Ch 53 53) (Ch 48 53), Cat (Ch 46 46) (Cat dec_octet (Cat (Ch 46 46)
        (Cat dec_octet (Cat (Ch 46 46) dec_octet)))), ha_to_port], [Rep 0 3 HEXDIG, ha_to_port]],
        [[Rep 0 3 HEXDIG, Ch 58 58, Rep 4 4 h16_colon, ls32, ha_to_end], [Rep 0 3 HEXDIG, Ch 58
        58, Rep 3 3 h16_colon, ls32, ha_to_end], [Rep 0 3 HEXDIG, Ch 58 58, Rep 2 2 h16_colon,
        ls32, ha_to_end], [Rep 0 3 HEXDIG, Ch 58 58, h16_colon, ls32, ha_to_end], [Rep 0 3 HEXDIG,
        Ch 58 58, ls32, ha_to_end], [Rep 0 3 HEXDIG, Cat (Ch 58 58) h16, ha_to_end], [Cat (Ch 46
        46) (Cat dec_octet (Cat (Ch 46 46) (Cat dec_octet (Cat (Ch 46 46) dec_octet)))),
        ha_to_end], [DIGIT, Cat (Ch 46 46) (Cat dec_octet (Cat (Ch 46 46) (Cat dec_octet (Cat (Ch
        46 46) dec_octet)))), ha_to_end], [Cat (Ch 48 52) DIGIT, Cat (Ch 46 46) (Cat dec_octet
        (Cat (Ch 46 46) (Cat dec_octet (Cat (Ch 46 46) dec_octet)))), ha_to_end], [Cat (Ch 53 53)
        (Ch 48 53), Cat (Ch 46 46) (Cat dec_octet (Cat (Ch 46 46) (Cat dec_octet (Cat (Ch 46 46)
        dec_octet)))), ha_to_end], [Rep 0 3 HEXDIG, ha_to_end]], [], [[Rep 0 3 HEXDIG, Ch 58 58,
        Rep 4 4 h16_colon, ls32, ha_address2], [Rep 0 3 HEXDIG, Ch 58 58, Rep 3 3 h16_colon, ls32,
        ha_address2], [Rep 0 3 HEXDIG, Ch 58 58, Rep 2 2 h16_colon, ls32, ha_address2], [Rep 0 3
        HEXDIG, Ch 58 58, h16_colon, ls32, ha_address2], [Rep 0 3 HEXDIG, Ch 58 58, ls32,
        ha_address2], [Rep 0 3 HEXDIG, Cat (Ch 58 58) h16, ha_address2], [Cat (Ch 46 46) (Cat
        dec_octet (Cat (Ch 46 46) (Cat dec_octet (Cat (Ch 46 46) dec_octet)))), ha_address2],
        [DIGIT, Cat (Ch 46 46) (Cat dec_octet (Cat (Ch 46 46) (Cat dec_octet (Cat (Ch 46 46)
        dec_octet)))), ha_address2], [Cat (Ch 48 52) DIGIT, Cat (Ch 46 46) (Cat dec_octet (Cat (Ch
        46 46) (Cat dec_octet (Cat (Ch 46 46) dec_octet)))), ha_address2], [Cat (Ch 53 53) (Ch 48
        53), Cat (Ch 46 46) (Cat dec_octet (Cat (Ch 46 46) (Cat dec_octet (Cat (Ch 46 46)
        dec_octet)))), ha_address2], [Rep 0 3 HEXDIG, ha_address2]]]])
      else
      if s = 370 then ([-128, 32, 33, 46, 47, 48, 54, 58, 59, 65, 71, 97, 103], [[[], [[Rep 0 2
        HEXDIG, Ch 58 58, Rep 4 4 h16_colon, ls32, Ch 32 32], [Rep 0 2 HEXDIG, Ch 58 58, Rep 3 3
        h16_colon, ls32, Ch 32 32], [Rep 0 2 HEXDIG, Ch 58 58, Rep 2 2 h16_colon, ls32, Ch 32 32],
        [Rep 0 2 HEXDIG, Ch 58 58, h16_colon, ls32, Ch 32 32], [Rep 0 2 HEXDIG, Ch 58 58, ls32, Ch
        32 32], [Rep 0 2 HEXDIG, Cat (Ch 58 58) h16, Ch 32 32], [Cat (Ch 46 46) (Cat dec_octet
        (Cat (Ch 46 46) (Cat dec_octet (Cat (Ch 46 46) dec_octet)))), Ch 32 32], [Ch 48 53, Cat
        (Ch 46 46) (Cat dec_octet (Cat (Ch 46 46) (Cat dec_octet (Cat (Ch 46 46) dec_octet)))), Ch
        32 32], [Rep 0 2 HEXDIG, Ch 32 32]], [[Rep 0 2 HEXDIG, Ch 58 58, Rep 4 4 h16_colon, ls32,
        ha_to_port], [Rep 0 2 HEXDIG, Ch 58 58, Rep 3 3 h16_colon, ls32, ha_to_port], [Rep 0 2
        HEXDIG, Ch 58 58, Rep 2 2 h16_colon, ls32, ha_to_port], [Rep 0 2 HEXDIG, Ch 58 58,
        h16_colon, ls32, ha_to_port], [Rep 0 2 HEXDIG, Ch 58 58, ls32, ha_to_port], [Rep 0 2
        HEXDIG, Cat (Ch 58 58) h16, ha_to_port], [Cat (Ch 46 46) (Cat dec_octet (Cat (Ch 46 46)
        (Cat dec_octet (Cat (Ch 46 46) dec_octet)))), ha_to_port], [Ch 48 53, Cat (Ch 46 46) (Cat
        dec_octet (Cat (Ch 46 46) (Cat dec_octet (Cat (Ch 46 46) dec_octet)))), ha_to_port], [Rep
        0 2 HEXDIG, ha_to_port]], [[Rep 0 2 HEXDIG, Ch 58 58, Rep 4 4 h16_colon, ls32, ha_to_end],
        [Rep 0 2 HEXDIG, Ch 58 58, Rep 3 3 h16_colon, ls32, ha_to_end], [Rep 0 2 HEXDIG, Ch 58 58,
        Rep 2 2 h16_colon, ls32, ha_to_end], [Rep 0 2 HEXDIG, Ch 58 58, h16_colon, ls32,
        ha_to_end], [Rep 0 2 HEXDIG, Ch 58 58, ls32, ha_to_end], [Rep 0 2 HEXDIG, Cat (Ch 58 58)
        h16, ha_to_end], [Cat (Ch 46 46) (Cat dec_octet (Cat (Ch 46 46) (Cat dec_octet (Cat (Ch 46
        46) dec_octet)))), ha_to_end], [Ch 48 53, Cat (Ch 46 46) (Cat dec_octet (Cat (Ch 46 46)
        (Cat dec_octet (Cat (Ch 46 46) dec_octet)))), ha_to_end], [Rep 0 2 HEXDIG, ha_to_end]],
        [], [[Rep 0 2 HEXDIG, Ch 58 58, Rep 4 4 h16_colon, ls32, ha_address2], [Rep 0 2 HEXDIG, Ch
        58 58, Rep 3 3 h16_colon, ls32, ha_address2], [Rep 0 2 HEXDIG, Ch 58 58, Rep 2 2
        h16_colon, ls32, ha_address2], [Rep 0 2 HEXDIG, Ch 58 58, h16_colon, ls32, ha_address2],
        [Rep 0 2 HEXDIG, Ch 58 58, ls32, ha_address2], [Rep 0 2 HEXDIG, Cat (Ch 58 58) h16,
        ha_address2], [Cat (Ch 46 46) (Cat dec_octet (Cat (Ch 46 46) (Cat dec_octet (Cat (Ch 46
        46) dec_octet)))), ha_address2], [Ch 48 53, Cat (Ch 46 46) (Cat dec_octet (Cat (Ch 46 46)
        (Cat dec_octet (Cat (Ch 46 46) dec_octet)))), ha_address2], [Rep 0 2 HEXDIG,
        ha_address2]]]])
      else
      if s = 371 then ([-128, 32, 33, 46, 47, 48, 58, 59, 65, 71, 97, 103], [[[], [[Rep 0 2
        HEXDIG, Ch 58 58, Rep 4 4 h16_colon, ls32, Ch 32 32], [Rep 0 2 HEXDIG, Ch 58 58, Rep 3 3
        h16_colon, ls32, Ch 32 32], [Rep 0 2 HEXDIG, Ch 58 58, Rep 2 2 h16_colon, ls32, Ch 32 32],
        [Rep 0 2 HEXDIG, Ch 58 58, h16_colon, ls32, Ch 32 32], [Rep 0 2 HEXDIG, Ch 58 58, ls32, Ch
        32 32], [Rep 0 2 HEXDIG, Cat (Ch 58 58) h16, Ch 32 32], [Cat (Ch 46 46) (Cat dec_octet
        (Cat (Ch 46 46) (Cat dec_octet (Cat (Ch 46 46) dec_octet)))), Ch 32 32], [Rep 0 2 HEXDIG,
        Ch 32 32]], [[Rep 0 2 HEXDIG, Ch 58 58, Rep 4 4 h16_colon, ls32, ha_to_port], [Rep 0 2
        HEXDIG, Ch 58 58, Rep 3 3 h16_colon, ls32, ha_to_port], [Rep 0 2 HEXDIG, Ch 58 58, Rep 2 2
        h16_colon, ls32, ha_to_port], [Rep 0 2 HEXDIG, Ch 58 58, h16_colon, ls32, ha_to_port],
        [Rep 0 2 HEXDIG, Ch 58 58, ls32, ha_to_port], [Rep 0 2 HEXDIG, Cat (Ch 58 58) h16,
        ha_to_port], [Cat (Ch 46 46) (Cat dec_octet (Cat (Ch 46 46) (Cat dec_octet (Cat (Ch 46 46)
        dec_octet)))), ha_to_port], [Rep 0 2 HEXDIG, ha_to_port]], [[Rep 0 2 HEXDIG, Ch 58 58, Rep
        4 4 h16_colon, ls32, ha_to_end], [Rep 0 2 HEXDIG, Ch 58 58, Rep 3 3 h16_colon, ls32,
        ha_to_end], [Rep 0 2 HEXDIG, Ch 58 58, Rep 2 2 h16_colon, ls32, ha_to_end], [Rep 0 2
        HEXDIG, Ch 58 58, h16_colon, ls32, ha_to_end], [Rep 0 2 HEXDIG, Ch 58 58, ls32,
        ha_to_end], [Rep 0 2 HEXDIG, Cat (Ch 58 58) h16, ha_to_end], [Cat (Ch 46 46) (Cat
        dec_octet (Cat (Ch 46 46) (Cat dec_octet (Cat (Ch 46 46) dec_octet)))), ha_to_end], [Rep 0
        2 HEXDIG, ha_to_end]], [], [[Rep 0 2 HEXDIG, Ch 58 58, Rep 4 4 h16_colon, ls32,
        ha_address2], [Rep 0 2 HEXDIG, Ch 58 58, Rep 3 3 h16_colon, ls32, ha_address2], [Rep 0 2
        HEXDIG, Ch 58 58, Rep 2 2 h16_colon, ls32, ha_address2], [Rep 0 2 HEXDIG, Ch 58 58,
        h16_colon, ls32, ha_address2], [Rep 0 2 HEXDIG, Ch 58 58, ls32, ha_address2], [Rep 0 2
        HEXDIG, Cat (Ch 58 58) h16, ha_address2], [Cat (Ch 46 46) (Cat dec_octet (Cat (Ch 46 46)
        (Cat dec_octet (Cat (Ch 46 46) dec_octet)))), ha_address2], [Rep 0 2 HEXDIG,
        ha_address2]]]])
      else
      if s = 372 then ([-128, 32, 33, 46, 47, 48, 58, 59, 65, 71, 97, 103], [[[], [[Rep 0 3
        HEXDIG, Ch 58 58, Rep 4 4 h16_colon, ls32, Ch 32 32], [Rep 0 3 HEXDIG, Ch 58 58, Rep 3 3
        h16_colon, ls32, Ch 32 32], [Rep 0 3 HEXDIG, Ch 58 58, Rep 2 2 h16_colon, ls32, Ch 32 32],
        [Rep 0 3 HEXDIG, Ch 58 58, h16_colon, ls32, Ch 32 32], [Rep 0 3 HEXDIG, Ch 58 58, ls32, Ch
        32 32], [Rep 0 3 HEXDIG, Cat (Ch 58 58) h16, Ch 32 32], [Cat (Ch 46 46) (Cat dec_octet
        (Cat (Ch 46 46) (Cat dec_octet (Cat (Ch 46 46) dec_octet)))), Ch 32 32], [DIGIT, Cat (Ch
        46 46) (Cat dec_octet (Cat (Ch 46 46) (Cat dec_octet (Cat (Ch 46 46) dec_octet)))), Ch 32
        32], [Rep 0 3 HEXDIG, Ch 32 32]], [[Rep 0 3 HEXDIG, Ch 58 58, Rep 4 4 h16_colon, ls32,
        ha_to_port], [Rep 0 3 HEXDIG, Ch 58 58, Rep 3 3 h16_colon, ls32, ha_to_port], [Rep 0 3
        HEXDIG, Ch 58 58, Rep 2 2 h16_colon, ls32, ha_to_port], [Rep 0 3 HEXDIG, Ch 58 58,
        h16_colon, ls32, ha_to_port], [Rep 0 3 HEXDIG, Ch 58 58, ls32, ha_to_port], [Rep 0 3
        HEXDIG, Cat (Ch 58 58) h16, ha_to_port], [Cat (Ch 46 46) (Cat dec_octet (Cat (Ch 46 46)
        (Cat dec_octet (Cat (Ch 46 46) dec_octet)))), ha_to_port], [DIGIT, Cat (Ch 46 46) (Cat
        dec_octet (Cat (Ch 46 46) (Cat dec_octet (Cat (Ch 46 46) dec_octet)))), ha_to_port], [Rep
        0 3 HEXDIG, ha_to_port]], [[Rep 0 3 HEXDIG, Ch 58 58, Rep 4 4 h16_colon, ls32, ha_to_end],
        [Rep 0 3 HEXDIG, Ch 58 58, Rep 3 3 h16_colon, ls32, ha_to_end], [Rep 0 3 HEXDIG, Ch 58 58,
        Rep 2 2 h16_colon, ls32, ha_to_end], [Rep 0 3 HEXDIG, Ch 58 58, h16_colon, ls32,
        ha_to_end], [Rep 0 3 HEXDIG, Ch 58 58, ls32, ha_to_end], [Rep 0 3 HEXDIG, Cat (Ch 58 58)
        h16, ha_to_end], [Cat (Ch 46 46) (Cat dec_octet (Cat (Ch 46 46) (Cat dec_octet (Cat (Ch 46
        46) dec_octet)))), ha_to_end], [DIGIT, Cat (Ch 46 46) (Cat dec_octet (Cat (Ch 46 46) (Cat
        dec_octet (Cat (Ch 46 46) dec_octet)))), ha_to_end], [Rep 0 3 HEXDIG, ha_to_end]], [],
        [[Rep 0 3 HEXDIG, Ch 58 58, Rep 4 4 h16_colon, ls32, ha_address2], [Rep 0 3 HEXDIG, Ch 58
        58, Rep 3 3 h16_colon, ls32, ha_address2], [Rep 0 3 HEXDIG, Ch 58 58, Rep 2 2 h16_colon,
        ls32, ha_address2], [Rep 0 3 HEXDIG, Ch 58 58, h16_colon, ls32, ha_address2], [Rep 0 3
        HEXDIG, Ch 58 58, ls32, ha_address2], [Rep 0 3 HEXDIG, Cat (Ch 58 58) h16, ha_address2],
        [Cat (Ch 46 46) (Cat dec_octet (Cat (Ch 46 46) (Cat dec_octet (Cat (Ch 46 46)
        dec_octet)))), ha_address2], [DIGIT, Cat (Ch 46 46) (Cat dec_octet (Cat (Ch 46 46) (Cat
        dec_octet (Cat (Ch 46 46) dec_octet)))), ha_address2], [Rep 0 3 HEXDIG, ha_address2]]]])
      else
      if s = 373 then ([-128, 32, 33, 48, 58, 59, 65, 71, 97, 103], [[[], [[Rep 0 3 HEXDIG, Ch 58
        58, Rep 4 4 h16_colon, ls32, Ch 32 32], [Rep 0 3 HEXDIG, Ch 58 58, Rep 3 3 h16_colon,
        ls32, Ch 32 32], [Rep 0 3 HEXDIG, Ch 58 58, Rep 2 2 h16_colon, ls32, Ch 32 32], [Rep 0 3
        HEXDIG, Ch 58 58, h16_colon, ls32, Ch 32 32], [Rep 0 3 HEXDIG, Ch 58 58, ls32, Ch 32 32],
        [Rep 0 3 HEXDIG, Cat (Ch 58 58) h16, Ch 32 32], [Rep 0 3 HEXDIG, Ch 32 32]], [[Rep 0 3
        HEXDIG, Ch 58 58, Rep 4 4 h16_colon, ls32, ha_to_port], [Rep 0 3 HEXDIG, Ch 58 58, Rep 3 3
        h16_colon, ls32, ha_to_port], [Rep 0 3 HEXDIG, Ch 58 58, Rep 2 2 h16_colon, ls32,
        ha_to_port], [Rep 0 3 HEXDIG, Ch 58 58, h16_colon, ls32, ha_to_port], [Rep 0 3 HEXDIG, Ch
        58 58, ls32, ha_to_port], [Rep 0 3 HEXDIG, Cat (Ch 58 58) h16, ha_to_port], [Rep 0 3
        HEXDIG, ha_to_port]], [[Rep 0 3 HEXDIG, Ch 58 58, Rep 4 4 h16_colon, ls32, ha_to_end],
        [Rep 0 3 HEXDIG, Ch 58 58, Rep 3 3 h16_colon, ls32, ha_to_end], [Rep 0 3 HEXDIG, Ch 58 58,
        Rep 2 2 h16_colon, ls32, ha_to_end], [Rep 0 3 HEXDIG, Ch 58 58, h16_colon, ls32,
        ha_to_end], [Rep 0 3 HEXDIG, Ch 58 58, ls32, ha_to_end], [Rep 0 3 HEXDIG, Cat (Ch 58 58)
        h16, ha_to_end], [Rep 0 3 HEXDIG, ha_to_end]], [], [[Rep 0 3 HEXDIG, Ch 58 58, Rep 4 4
        h16_colon, ls32, ha_address2], [Rep 0 3 HEXDIG, Ch 58 58, Rep 3 3 h16_colon, ls32,
        ha_address2], [Rep 0 3 HEXDIG, Ch 58 58, Rep 2 2 h16_colon, ls32, ha_address2], [Rep 0 3
        HEXDIG, Ch 58 58, h16_colon, ls32, ha_address2], [Rep 0 3 HEXDIG, Ch 58 58, ls32,
        ha_address2], [Rep 0 3 HEXDIG, Cat (Ch 58 58) h16, ha_address2], [Rep 0 3 HEXDIG,
        ha_address2]]]])
      else
      if s = 374 then ([-128, 48, 58, 59, 65, 71, 97, 103], [[[], [[Rep 0 3 HEXDIG, Ch 58 58, Rep
        5 5 h16_colon, ls32, Ch 32 32], [Rep 0 3 HEXDIG, Cat dcolon (Cat (Rep 4 4 h16_colon)
        ls32), Ch 32 32], [Rep 0 3 HEXDIG, Cat dcolon (Cat (Rep 3 3 h16_colon) ls32), Ch 32 32],
        [Rep 0 3 HEXDIG, Ch 58 58, h16, Cat dcolon (Cat (Rep 3 3 h16_colon) ls32), Ch 32 32], [Rep
        0 3 HEXDIG, Cat dcolon (Cat (Rep 2 2 h16_colon) ls32), Ch 32 32], [Rep 0 3 HEXDIG, Ch 58
        58, Rep 0 1 h16_colon, h16, Cat dcolon (Cat (Rep 2 2 h16_colon) ls32), Ch 32 32], [Rep 0 3
        HEXDIG, Cat dcolon (Cat h16_colon ls32), Ch 32 32], [Rep 0 3 HEXDIG, Ch 58 58, Rep 0 2
        h16_colon, h16, Cat dcolon (Cat h16_colon ls32), Ch 32 32], [Rep 0 3 HEXDIG, Cat dcolon
        ls32, Ch 32 32], [Rep 0 3 HEXDIG, Ch 58 58, Rep 0 3 h16_colon, h16, Cat dcolon ls32, Ch 32
        32], [Rep 0 3 HEXDIG, Cat dcolon h16, Ch 32 32], [Rep 0 3 HEXDIG, Ch 58 58, Rep 0 4
        h16_colon, h16, Cat dcolon h16, Ch 32 32], [Rep 0 3 HEXDIG, dcolon, Ch 32 32], [Rep 0 3
        HEXDIG, Ch 58 58, Rep 0 5 h16_colon, h16, dcolon, Ch 32 32]], [[Rep 0 3 HEXDIG, Ch 58 58,
        Rep 5 5 h16_colon, ls32, ha_to_port], [Rep 0 3 HEXDIG, Cat dcolon (Cat (Rep 4 4 h16_colon)
        ls32), ha_to_port], [Rep 0 3 HEXDIG, Cat dcolon (Cat (Rep 3 3 h16_colon) ls32),
        ha_to_port], [Rep 0 3 HEXDIG, Ch 58 58, h16, Cat dcolon (Cat (Rep 3 3 h16_colon) ls32),
        ha_to_port], [Rep 0 3 HEXDIG, Cat dcolon (Cat (Rep 2 2 h16_colon) ls32), ha_to_port], [Rep
        0 3 HEXDIG, Ch 58 58, Rep 0 1 h16_colon, h16, Cat dcolon (Cat (Rep 2 2 h16_colon) ls32),
        ha_to_port], [Rep 0 3 HEXDIG, Cat dcolon (Cat h16_colon ls32), ha_to_port], [Rep 0 3
        HEXDIG, Ch 58 58, Rep 0 2 h16_colon, h16, Cat dcolon (Cat h16_colon ls32), ha_to_port],
        [Rep 0 3 HEXDIG, Cat dcolon ls32, ha_to_port], [Rep 0 3 HEXDIG, Ch 58 58, Rep 0 3
        h16_colon, h16, Cat dcolon ls32, ha_to_port], [Rep 0 3 HEXDIG, Cat dcolon h16,
        ha_to_port], [Rep 0 3 HEXDIG, Ch 58 58, Rep 0 4 h16_colon, h16, Cat dcolon h16,
        ha_to_port], [Rep 0 3 HEXDIG, dcolon, ha_to_port], [Rep 0 3 HEXDIG, Ch 58 58, Rep 0 5
        h16_colon, h16, dcolon, ha_to_port]], [[Rep 0 3 HEXDIG, Ch 58 58, Rep 5 5 h16_colon, ls32,
        ha_to_end], [Rep 0 3 HEXDIG, Cat dcolon (Cat (Rep 4 4 h16_colon) ls32), ha_to_end], [Rep 0
        3 HEXDIG, Cat dcolon (Cat (Rep 3 3 h16_colon) ls32), ha_to_end], [Rep 0 3 HEXDIG, Ch 58
        58, h16, Cat dcolon (Cat (Rep 3 3 h16_colon) ls32), ha_to_end], [Rep 0 3 HEXDIG, Cat
        dcolon (Cat (Rep 2 2 h16_colon) ls32), ha_to_end], [Rep 0 3 HEXDIG, Ch 58 58, Rep 0 1
        h16_colon, h16, Cat dcolon (Cat (Rep 2 2 h16_colon) ls32), ha_to_end], [Rep 0 3 HEXDIG,
        Cat dcolon (Cat h16_colon ls32), ha_to_end], [Rep 0 3 HEXDIG, Ch 58 58, Rep 0 2 h16_colon,
        h16, Cat dcolon (Cat h16_colon ls32), ha_to_end], [Rep 0 3 HEXDIG, Cat dcolon ls32,
        ha_to_end], [Rep 0 3 HEXDIG, Ch 58 58, Rep 0 3 h16_colon, h16, Cat dcolon ls32,
        ha_to_end], [Rep 0 3 HEXDIG, Cat dcolon h16, ha_to_end], [Rep 0 3 HEXDIG, Ch 58 58, Rep 0
        4 h16_colon, h16, Cat dcolon h16, ha_to_end], [Rep 0 3 HEXDIG, dcolon, ha_to_end], [Rep 0
        3 HEXDIG, Ch 58 58, Rep 0 5 h16_colon, h16, dcolon, ha_to_end]], [], [[Rep 0 3 HEXDIG, Ch
        58 58, Rep 5 5 h16_colon, ls32, ha_address2], [Rep 0 3 HEXDIG, Cat dcolon (Cat (Rep 4 4
        h16_colon) ls32), ha_address2], [Rep 0 3 HEXDIG, Cat dcolon (Cat (Rep 3 3 h16_colon)
        ls32), ha_address2], [Rep 0 3 HEXDIG, Ch 58 58, h16, Cat dcolon (Cat (Rep 3 3 h16_colon)
        ls32), ha_address2], [Rep 0 3 HEXDIG, Cat dcolon (Cat (Rep 2 2 h16_colon) ls32),
        ha_address2], [Rep 0 3 HEXDIG, Ch 58 58, Rep 0 1 h16_colon, h16, Cat dcolon (Cat (Rep 2 2
        h16_colon) ls32), ha_address2], [Rep 0 3 HEXDIG, Cat dcolon (Cat h16_colon ls32),
        ha_address2], [Rep 0 3 HEXDIG, Ch 58 58, Rep 0 2 h16_colon, h16, Cat dcolon (Cat h16_colon
        ls32), ha_address2], [Rep 0 3 HEXDIG, Cat dcolon ls32, ha_address2], [Rep 0 3 HEXDIG, Ch
        58 58, Rep 0 3 h16_colon, h16, Cat dcolon ls32, ha_address2], [Rep 0 3 HEXDIG, Cat dcolon
        h16, ha_address2], [Rep 0 3 HEXDIG, Ch 58 58, Rep 0 4 h16_colon, h16, Cat dcolon h16,
        ha_address2], [Rep 0 3 HEXDIG, dcolon, ha_address2], [Rep 0 3 HEXDIG, Ch 58 58, Rep 0 5
        h16_colon, h16, dcolon, ha_address2]]]])
      else
      ([-128], [[[], [], [], [[]], [], []]]))"

definition ha_expects :: certificate where
  "ha_expects s =
     (if s \<le> 8 then ha_expects_1 s else
      if s \<le> 16 then ha_expects_2 s else
      if s \<le> 24 then ha_expects_3 s else
      if s \<le> 32 then ha_expects_4 s else
      if s \<le> 40 then ha_expects_5 s else
      if s \<le> 48 then ha_expects_6 s else
      if s \<le> 56 then ha_expects_7 s else
      if s \<le> 64 then ha_expects_8 s else
      if s \<le> 72 then ha_expects_9 s else
      if s \<le> 80 then ha_expects_10 s else
      if s \<le> 88 then ha_expects_11 s else
      if s \<le> 96 then ha_expects_12 s else
      if s \<le> 104 then ha_expects_13 s else
      if s \<le> 112 then ha_expects_14 s else
      if s \<le> 120 then ha_expects_15 s else
      if s \<le> 128 then ha_expects_16 s else
      if s \<le> 136 then ha_expects_17 s else
      if s \<le> 144 then ha_expects_18 s else
      if s \<le> 152 then ha_expects_19 s else
      if s \<le> 160 then ha_expects_20 s else
      if s \<le> 168 then ha_expects_21 s else
      if s \<le> 176 then ha_expects_22 s else
      if s \<le> 184 then ha_expects_23 s else
      if s \<le> 192 then ha_expects_24 s else
      if s \<le> 200 then ha_expects_25 s else
      if s \<le> 208 then ha_expects_26 s else
      if s \<le> 216 then ha_expects_27 s else
      if s \<le> 224 then ha_expects_28 s else
      if s \<le> 232 then ha_expects_29 s else
      if s \<le> 240 then ha_expects_30 s else
      if s \<le> 248 then ha_expects_31 s else
      if s \<le> 256 then ha_expects_32 s else
      if s \<le> 264 then ha_expects_33 s else
      if s \<le> 272 then ha_expects_34 s else
      if s \<le> 280 then ha_expects_35 s else
      if s \<le> 288 then ha_expects_36 s else
      if s \<le> 296 then ha_expects_37 s else
      if s \<le> 304 then ha_expects_38 s else
      if s \<le> 312 then ha_expects_39 s else
      if s \<le> 320 then ha_expects_40 s else
      if s \<le> 328 then ha_expects_41 s else
      if s \<le> 336 then ha_expects_42 s else
      if s \<le> 344 then ha_expects_43 s else
      if s \<le> 352 then ha_expects_44 s else
      if s \<le> 360 then ha_expects_45 s else
      if s \<le> 368 then ha_expects_46 s else
      ha_expects_47 s)"

lemmas ha_expects_defs =
  ha_expects_def
  ha_expects_1_def ha_expects_2_def ha_expects_3_def ha_expects_4_def ha_expects_5_def
  ha_expects_6_def ha_expects_7_def ha_expects_8_def ha_expects_9_def ha_expects_10_def
  ha_expects_11_def ha_expects_12_def ha_expects_13_def ha_expects_14_def ha_expects_15_def
  ha_expects_16_def ha_expects_17_def ha_expects_18_def ha_expects_19_def ha_expects_20_def
  ha_expects_21_def ha_expects_22_def ha_expects_23_def ha_expects_24_def ha_expects_25_def
  ha_expects_26_def ha_expects_27_def ha_expects_28_def ha_expects_29_def ha_expects_30_def
  ha_expects_31_def ha_expects_32_def ha_expects_33_def ha_expects_34_def ha_expects_35_def
  ha_expects_36_def ha_expects_37_def ha_expects_38_def ha_expects_39_def ha_expects_40_def
  ha_expects_41_def ha_expects_42_def ha_expects_43_def ha_expects_44_def ha_expects_45_def
  ha_expects_46_def ha_expects_47_def

lemmas [cert_eval] =
  ha_blocks_case ha_blocks_trans ha_expects_defs ha_acts_ok_def

end
