(* ===== verification/Haproxy_Certificate_Rows_1.thy ===== *)
theory Haproxy_Certificate_Rows_1
  imports Haproxy_Certificate_Expects
begin

text \<open>The check of the rows, part 1 of 4.\<close>

lemma ha_range_1: "[1..8] = [1, 2, 3, 4, 5, 6, 7, 8]"
  by (simp add: upto_rec1)

lemma ha_rows_1: "list_all (state_ok ha_blocks ha_expects 375 ha_acts_ok) [1..8]"
  unfolding ha_range_1 by (simp only: cert_eval cong: cert_cong)

lemma ha_range_2: "[9..16] = [9, 10, 11, 12, 13, 14, 15, 16]"
  by (simp add: upto_rec1)

lemma ha_rows_2: "list_all (state_ok ha_blocks ha_expects 375 ha_acts_ok) [9..16]"
  unfolding ha_range_2 by (simp only: cert_eval cong: cert_cong)

lemma ha_range_3: "[17..24] = [17, 18, 19, 20, 21, 22, 23, 24]"
  by (simp add: upto_rec1)

lemma ha_rows_3: "list_all (state_ok ha_blocks ha_expects 375 ha_acts_ok) [17..24]"
  unfolding ha_range_3 by (simp only: cert_eval cong: cert_cong)

lemma ha_range_4: "[25..32] = [25, 26, 27, 28, 29, 30, 31, 32]"
  by (simp add: upto_rec1)

lemma ha_rows_4: "list_all (state_ok ha_blocks ha_expects 375 ha_acts_ok) [25..32]"
  unfolding ha_range_4 by (simp only: cert_eval cong: cert_cong)

lemma ha_range_5: "[33..40] = [33, 34, 35, 36, 37, 38, 39, 40]"
  by (simp add: upto_rec1)

lemma ha_rows_5: "list_all (state_ok ha_blocks ha_expects 375 ha_acts_ok) [33..40]"
  unfolding ha_range_5 by (simp only: cert_eval cong: cert_cong)

lemma ha_range_6: "[41..48] = [41, 42, 43, 44, 45, 46, 47, 48]"
  by (simp add: upto_rec1)

lemma ha_rows_6: "list_all (state_ok ha_blocks ha_expects 375 ha_acts_ok) [41..48]"
  unfolding ha_range_6 by (simp only: cert_eval cong: cert_cong)

lemma ha_range_7: "[49..56] = [49, 50, 51, 52, 53, 54, 55, 56]"
  by (simp add: upto_rec1)

lemma ha_rows_7: "list_all (state_ok ha_blocks ha_expects 375 ha_acts_ok) [49..56]"
  unfolding ha_range_7 by (simp only: cert_eval cong: cert_cong)

lemma ha_range_8: "[57..64] = [57, 58, 59, 60, 61, 62, 63, 64]"
  by (simp add: upto_rec1)

lemma ha_rows_8: "list_all (state_ok ha_blocks ha_expects 375 ha_acts_ok) [57..64]"
  unfolding ha_range_8 by (simp only: cert_eval cong: cert_cong)

lemma ha_range_9: "[65..72] = [65, 66, 67, 68, 69, 70, 71, 72]"
  by (simp add: upto_rec1)

lemma ha_rows_9: "list_all (state_ok ha_blocks ha_expects 375 ha_acts_ok) [65..72]"
  unfolding ha_range_9 by (simp only: cert_eval cong: cert_cong)

lemma ha_range_10: "[73..80] = [73, 74, 75, 76, 77, 78, 79, 80]"
  by (simp add: upto_rec1)

lemma ha_rows_10: "list_all (state_ok ha_blocks ha_expects 375 ha_acts_ok) [73..80]"
  unfolding ha_range_10 by (simp only: cert_eval cong: cert_cong)

lemma ha_range_11: "[81..88] = [81, 82, 83, 84, 85, 86, 87, 88]"
  by (simp add: upto_rec1)

lemma ha_rows_11: "list_all (state_ok ha_blocks ha_expects 375 ha_acts_ok) [81..88]"
  unfolding ha_range_11 by (simp only: cert_eval cong: cert_cong)

lemma ha_range_12: "[89..96] = [89, 90, 91, 92, 93, 94, 95, 96]"
  by (simp add: upto_rec1)

lemma ha_rows_12: "list_all (state_ok ha_blocks ha_expects 375 ha_acts_ok) [89..96]"
  unfolding ha_range_12 by (simp only: cert_eval cong: cert_cong)

end
