(* ===== verification/Haproxy_Certificate_Rows_2.thy ===== *)
theory Haproxy_Certificate_Rows_2
  imports Haproxy_Certificate_Expects
begin

text \<open>The check of the rows, part 2 of 4.\<close>

lemma ha_range_13: "[97..104] = [97, 98, 99, 100, 101, 102, 103, 104]"
  by (simp add: upto_rec1)

lemma ha_rows_13: "list_all (state_ok ha_blocks ha_expects 375 ha_acts_ok) [97..104]"
  unfolding ha_range_13 by (simp only: cert_eval cong: cert_cong)

lemma ha_range_14: "[105..112] = [105, 106, 107, 108, 109, 110, 111, 112]"
  by (simp add: upto_rec1)

lemma ha_rows_14: "list_all (state_ok ha_blocks ha_expects 375 ha_acts_ok) [105..112]"
  unfolding ha_range_14 by (simp only: cert_eval cong: cert_cong)

lemma ha_range_15: "[113..120] = [113, 114, 115, 116, 117, 118, 119, 120]"
  by (simp add: upto_rec1)

lemma ha_rows_15: "list_all (state_ok ha_blocks ha_expects 375 ha_acts_ok) [113..120]"
  unfolding ha_range_15 by (simp only: cert_eval cong: cert_cong)

lemma ha_range_16: "[121..128] = [121, 122, 123, 124, 125, 126, 127, 128]"
  by (simp add: upto_rec1)

lemma ha_rows_16: "list_all (state_ok ha_blocks ha_expects 375 ha_acts_ok) [121..128]"
  unfolding ha_range_16 by (simp only: cert_eval cong: cert_cong)

lemma ha_range_17: "[129..136] = [129, 130, 131, 132, 133, 134, 135, 136]"
  by (simp add: upto_rec1)

lemma ha_rows_17: "list_all (state_ok ha_blocks ha_expects 375 ha_acts_ok) [129..136]"
  unfolding ha_range_17 by (simp only: cert_eval cong: cert_cong)

lemma ha_range_18: "[137..144] = [137, 138, 139, 140, 141, 142, 143, 144]"
  by (simp add: upto_rec1)

lemma ha_rows_18: "list_all (state_ok ha_blocks ha_expects 375 ha_acts_ok) [137..144]"
  unfolding ha_range_18 by (simp only: cert_eval cong: cert_cong)

lemma ha_range_19: "[145..152] = [145, 146, 147, 148, 149, 150, 151, 152]"
  by (simp add: upto_rec1)

lemma ha_rows_19: "list_all (state_ok ha_blocks ha_expects 375 ha_acts_ok) [145..152]"
  unfolding ha_range_19 by (simp only: cert_eval cong: cert_cong)

lemma ha_range_20: "[153..160] = [153, 154, 155, 156, 157, 158, 159, 160]"
  by (simp add: upto_rec1)

lemma ha_rows_20: "list_all (state_ok ha_blocks ha_expects 375 ha_acts_ok) [153..160]"
  unfolding ha_range_20 by (simp only: cert_eval cong: cert_cong)

lemma ha_range_21: "[161..168] = [161, 162, 163, 164, 165, 166, 167, 168]"
  by (simp add: upto_rec1)

lemma ha_rows_21: "list_all (state_ok ha_blocks ha_expects 375 ha_acts_ok) [161..168]"
  unfolding ha_range_21 by (simp only: cert_eval cong: cert_cong)

lemma ha_range_22: "[169..176] = [169, 170, 171, 172, 173, 174, 175, 176]"
  by (simp add: upto_rec1)

lemma ha_rows_22: "list_all (state_ok ha_blocks ha_expects 375 ha_acts_ok) [169..176]"
  unfolding ha_range_22 by (simp only: cert_eval cong: cert_cong)

lemma ha_range_23: "[177..184] = [177, 178, 179, 180, 181, 182, 183, 184]"
  by (simp add: upto_rec1)

lemma ha_rows_23: "list_all (state_ok ha_blocks ha_expects 375 ha_acts_ok) [177..184]"
  unfolding ha_range_23 by (simp only: cert_eval cong: cert_cong)

lemma ha_range_24: "[185..192] = [185, 186, 187, 188, 189, 190, 191, 192]"
  by (simp add: upto_rec1)

lemma ha_rows_24: "list_all (state_ok ha_blocks ha_expects 375 ha_acts_ok) [185..192]"
  unfolding ha_range_24 by (simp only: cert_eval cong: cert_cong)

end
