(* ===== verification/Haproxy_Certificate_Rows_3.thy ===== *)
theory Haproxy_Certificate_Rows_3
  imports Haproxy_Certificate_Expects
begin

text \<open>The check of the rows, part 3 of 4.\<close>

lemma ha_range_25: "[193..200] = [193, 194, 195, 196, 197, 198, 199, 200]"
  by (simp add: upto_rec1)

lemma ha_rows_25: "list_all (state_ok ha_blocks ha_expects 375 ha_acts_ok) [193..200]"
  unfolding ha_range_25 by (simp only: cert_eval cong: cert_cong)

lemma ha_range_26: "[201..208] = [201, 202, 203, 204, 205, 206, 207, 208]"
  by (simp add: upto_rec1)

lemma ha_rows_26: "list_all (state_ok ha_blocks ha_expects 375 ha_acts_ok) [201..208]"
  unfolding ha_range_26 by (simp only: cert_eval cong: cert_cong)

lemma ha_range_27: "[209..216] = [209, 210, 211, 212, 213, 214, 215, 216]"
  by (simp add: upto_rec1)

lemma ha_rows_27: "list_all (state_ok ha_blocks ha_expects 375 ha_acts_ok) [209..216]"
  unfolding ha_range_27 by (simp only: cert_eval cong: cert_cong)

lemma ha_range_28: "[217..224] = [217, 218, 219, 220, 221, 222, 223, 224]"
  by (simp add: upto_rec1)

lemma ha_rows_28: "list_all (state_ok ha_blocks ha_expects 375 ha_acts_ok) [217..224]"
  unfolding ha_range_28 by (simp only: cert_eval cong: cert_cong)

lemma ha_range_29: "[225..232] = [225, 226, 227, 228, 229, 230, 231, 232]"
  by (simp add: upto_rec1)

lemma ha_rows_29: "list_all (state_ok ha_blocks ha_expects 375 ha_acts_ok) [225..232]"
  unfolding ha_range_29 by (simp only: cert_eval cong: cert_cong)

lemma ha_range_30: "[233..240] = [233, 234, 235, 236, 237, 238, 239, 240]"
  by (simp add: upto_rec1)

lemma ha_rows_30: "list_all (state_ok ha_blocks ha_expects 375 ha_acts_ok) [233..240]"
  unfolding ha_range_30 by (simp only: cert_eval cong: cert_cong)

lemma ha_range_31: "[241..248] = [241, 242, 243, 244, 245, 246, 247, 248]"
  by (simp add: upto_rec1)

lemma ha_rows_31: "list_all (state_ok ha_blocks ha_expects 375 ha_acts_ok) [241..248]"
  unfolding ha_range_31 by (simp only: cert_eval cong: cert_cong)

lemma ha_range_32: "[249..256] = [249, 250, 251, 252, 253, 254, 255, 256]"
  by (simp add: upto_rec1)

lemma ha_rows_32: "list_all (state_ok ha_blocks ha_expects 375 ha_acts_ok) [249..256]"
  unfolding ha_range_32 by (simp only: cert_eval cong: cert_cong)

lemma ha_range_33: "[257..264] = [257, 258, 259, 260, 261, 262, 263, 264]"
  by (simp add: upto_rec1)

lemma ha_rows_33: "list_all (state_ok ha_blocks ha_expects 375 ha_acts_ok) [257..264]"
  unfolding ha_range_33 by (simp only: cert_eval cong: cert_cong)

lemma ha_range_34: "[265..272] = [265, 266, 267, 268, 269, 270, 271, 272]"
  by (simp add: upto_rec1)

lemma ha_rows_34: "list_all (state_ok ha_blocks ha_expects 375 ha_acts_ok) [265..272]"
  unfolding ha_range_34 by (simp only: cert_eval cong: cert_cong)

lemma ha_range_35: "[273..280] = [273, 274, 275, 276, 277, 278, 279, 280]"
  by (simp add: upto_rec1)

lemma ha_rows_35: "list_all (state_ok ha_blocks ha_expects 375 ha_acts_ok) [273..280]"
  unfolding ha_range_35 by (simp only: cert_eval cong: cert_cong)

lemma ha_range_36: "[281..288] = [281, 282, 283, 284, 285, 286, 287, 288]"
  by (simp add: upto_rec1)

lemma ha_rows_36: "list_all (state_ok ha_blocks ha_expects 375 ha_acts_ok) [281..288]"
  unfolding ha_range_36 by (simp only: cert_eval cong: cert_cong)

end
