(* ===== verification/Haproxy_Certificate_Rows_4.thy ===== *)
theory Haproxy_Certificate_Rows_4
  imports Haproxy_Certificate_Expects
begin

text \<open>The check of the rows, part 4 of 4.\<close>

lemma ha_range_37: "[289..296] = [289, 290, 291, 292, 293, 294, 295, 296]"
  by (simp add: upto_rec1)

lemma ha_rows_37: "list_all (state_ok ha_blocks ha_expects 375 ha_acts_ok) [289..296]"
  unfolding ha_range_37 by (simp only: cert_eval cong: cert_cong)

lemma ha_range_38: "[297..304] = [297, 298, 299, 300, 301, 302, 303, 304]"
  by (simp add: upto_rec1)

lemma ha_rows_38: "list_all (state_ok ha_blocks ha_expects 375 ha_acts_ok) [297..304]"
  unfolding ha_range_38 by (simp only: cert_eval cong: cert_cong)

lemma ha_range_39: "[305..312] = [305, 306, 307, 308, 309, 310, 311, 312]"
  by (simp add: upto_rec1)

lemma ha_rows_39: "list_all (state_ok ha_blocks ha_expects 375 ha_acts_ok) [305..312]"
  unfolding ha_range_39 by (simp only: cert_eval cong: cert_cong)

lemma ha_range_40: "[313..320] = [313, 314, 315, 316, 317, 318, 319, 320]"
  by (simp add: upto_rec1)

lemma ha_rows_40: "list_all (state_ok ha_blocks ha_expects 375 ha_acts_ok) [313..320]"
  unfolding ha_range_40 by (simp only: cert_eval cong: cert_cong)

lemma ha_range_41: "[321..328] = [321, 322, 323, 324, 325, 326, 327, 328]"
  by (simp add: upto_rec1)

lemma ha_rows_41: "list_all (state_ok ha_blocks ha_expects 375 ha_acts_ok) [321..328]"
  unfolding ha_range_41 by (simp only: cert_eval cong: cert_cong)

lemma ha_range_42: "[329..336] = [329, 330, 331, 332, 333, 334, 335, 336]"
  by (simp add: upto_rec1)

lemma ha_rows_42: "list_all (state_ok ha_blocks ha_expects 375 ha_acts_ok) [329..336]"
  unfolding ha_range_42 by (simp only: cert_eval cong: cert_cong)

lemma ha_range_43: "[337..344] = [337, 338, 339, 340, 341, 342, 343, 344]"
  by (simp add: upto_rec1)

lemma ha_rows_43: "list_all (state_ok ha_blocks ha_expects 375 ha_acts_ok) [337..344]"
  unfolding ha_range_43 by (simp only: cert_eval cong: cert_cong)

lemma ha_range_44: "[345..352] = [345, 346, 347, 348, 349, 350, 351, 352]"
  by (simp add: upto_rec1)

lemma ha_rows_44: "list_all (state_ok ha_blocks ha_expects 375 ha_acts_ok) [345..352]"
  unfolding ha_range_44 by (simp only: cert_eval cong: cert_cong)

lemma ha_range_45: "[353..360] = [353, 354, 355, 356, 357, 358, 359, 360]"
  by (simp add: upto_rec1)

lemma ha_rows_45: "list_all (state_ok ha_blocks ha_expects 375 ha_acts_ok) [353..360]"
  unfolding ha_range_45 by (simp only: cert_eval cong: cert_cong)

lemma ha_range_46: "[361..368] = [361, 362, 363, 364, 365, 366, 367, 368]"
  by (simp add: upto_rec1)

lemma ha_rows_46: "list_all (state_ok ha_blocks ha_expects 375 ha_acts_ok) [361..368]"
  unfolding ha_range_46 by (simp only: cert_eval cong: cert_cong)

lemma ha_range_47: "[369..375] = [369, 370, 371, 372, 373, 374, 375]"
  by (simp add: upto_rec1)

lemma ha_rows_47: "list_all (state_ok ha_blocks ha_expects 375 ha_acts_ok) [369..375]"
  unfolding ha_range_47 by (simp only: cert_eval cong: cert_cong)

end
