(* ===== verification/Haproxy_Certificate.thy ===== *)
theory Haproxy_Certificate
  imports Haproxy_Certificate_Rows_1 Haproxy_Certificate_Rows_2 Haproxy_Certificate_Rows_3 Haproxy_Certificate_Rows_4
begin

text \<open>All rows of the certificate of ext/utils/haproxy_protocol.c.\<close>

lemmas ha_rows =
  ha_rows_1 ha_rows_2 ha_rows_3 ha_rows_4 ha_rows_5 ha_rows_6 ha_rows_7 ha_rows_8 ha_rows_9
  ha_rows_10 ha_rows_11 ha_rows_12 ha_rows_13 ha_rows_14 ha_rows_15 ha_rows_16 ha_rows_17
  ha_rows_18 ha_rows_19 ha_rows_20 ha_rows_21 ha_rows_22 ha_rows_23 ha_rows_24 ha_rows_25
  ha_rows_26 ha_rows_27 ha_rows_28 ha_rows_29 ha_rows_30 ha_rows_31 ha_rows_32 ha_rows_33
  ha_rows_34 ha_rows_35 ha_rows_36 ha_rows_37 ha_rows_38 ha_rows_39 ha_rows_40 ha_rows_41
  ha_rows_42 ha_rows_43 ha_rows_44 ha_rows_45 ha_rows_46 ha_rows_47

lemma ha_rows_ok: "list_all (state_ok ha_blocks ha_expects 375 ha_acts_ok) [1..375]"
  by ((rule list_all_upto_split, rule ha_rows, simp)+, simp)

end
