(* ===== verification/Haproxy_Protocol.thy ===== *)
theory Haproxy_Protocol
  imports Flow_Lines Haproxy_Certificate
begin

text \<open>
  \<open>struct_haproxy_protocol_parser_execute\<close> of ext/utils/haproxy_protocol.rl and
  \<open>Utils_parser_haproxy_protocol\<close> of ext/utils/utils_ruby.c: the source address and port in the
  line a HAProxy in front of the server sends, such as
  \<open>PROXY TCP4 192.168.0.1 192.168.0.11 56324 443\<close> and a line end.
\<close>

record struct_haproxy_protocol = flow_fields +
  total_len :: nat

definition struct_haproxy_protocol_parser_execute :: "string \<Rightarrow> struct_haproxy_protocol" where
  "struct_haproxy_protocol_parser_execute str =
     (case rgl_exec ha_blocks flow_act 1 0 str (flow_init, False) of
        (cs, p, line, finished) \<Rightarrow>
          \<lparr>valid = if finished then 1 else valid line, ip_type = ip_type line, ip_s = ip_s line,
           ip_len = ip_len line, port_s = port_s line, port_len = port_len line,
           total_len = p mod 65536\<rparr>)"

fun Utils_parser_haproxy_protocol :: "ruby_value \<Rightarrow> outcome" where
  "Utils_parser_haproxy_protocol (Str str) =
     (let t = struct_haproxy_protocol_parser_execute str in
      if valid t = 0 then Inr Qfalse
      else
        let ip = take (ip_len t) (drop (ip_s t) str);
            ip_type = (if ip_type t = Some ip_type_ipv4' then Sym ''ipv4'' else Sym ''ipv6'')
        in (case str_to_int (take (port_len t) (drop (port_s t) str)) of
              None \<Rightarrow> Inl OutOfBounds
            | Some n \<Rightarrow> Inr (Ary [Fix (int (total_len t)), ip_type, Str ip, Fix n])))"
| "Utils_parser_haproxy_protocol v = Inl TypeError"

interpretation ha: certified_automaton ha_blocks 1 ha_expects 375 ha_acts_ok ha_grammars
proof unfold_locales
  show "list_all rx_live ha_grammars"
    by (simp add: ha_grammars_def flow_grammar_defs ip_grammar_defs Lit_codes)
  show "map (\<lambda>g. [[g]]) ha_grammars \<in> set (snd (ha_expects 1))"
    by (simp add: ha_grammars_def ha_expects_def ha_expects_1_def)
  show "list_all (state_ok ha_blocks ha_expects 375 ha_acts_ok) [1..375]"
    by (rule ha_rows_ok)
qed simp_all

subsection \<open>The words of the grammars\<close>

lemma length_ha_grammars [simp]: "length ha_grammars = 6"
  by (simp add: ha_grammars_def)

definition ha_head :: "string \<Rightarrow> bool" where
  "ha_head h \<longleftrightarrow> h = ''PROXY TCP4 '' \<or> h = ''PROXY TCP6 ''"

lemma ha_literals:
  "lang (Ch 80 80) = {''P''}" "lang (Ch 82 82) = {''R''}" "lang (Ch 79 79) = {''O''}"
  "lang (Ch 88 88) = {''X''}" "lang (Ch 89 89) = {''Y''}" "lang (Ch 84 84) = {''T''}"
  "lang (Ch 67 67) = {''C''}" "lang (Ch 52 52) = {''4''}" "lang (Ch 54 54) = {''6''}"
  by (rule lang_Ch_single, simp add: schar_def)+

lemma conc_single: "w \<in> conc {u} A \<longleftrightarrow> (\<exists>v \<in> A. w = u @ v)"
  by (auto simp: conc_def)

lemma lang_ha_start: "h \<in> lang ha_start \<longleftrightarrow> ha_head h"
  unfolding ha_start_def lang.simps(3,4) ha_literals flow_separators ha_head_def
  by (auto simp: conc_def)

lemma in_conc: "w \<in> conc A B \<longleftrightarrow> (\<exists>u \<in> A. \<exists>v \<in> B. w = u @ v)"
  by (auto simp: conc_def)

lemma concI: "u \<in> A \<Longrightarrow> v \<in> B \<Longrightarrow> u @ v \<in> conc A B"
  by (auto simp: conc_def)

lemma lang_ha_address2: "w \<in> lang ha_address2 \<longleftrightarrow> (\<exists>b \<in> lang IPaddress. w = '' '' @ b @ '' '')"
  unfolding ha_address2_def lang.simps(3) flow_separators in_conc Bex_def by auto

lemma lang_ha_to_port:
  "w \<in> lang ha_to_port \<longleftrightarrow> (\<exists>b \<in> lang IPaddress. \<exists>q. port_text q \<and> w = '' '' @ b @ '' '' @ q)"
  unfolding ha_to_port_def lang.simps(3) flow_separators in_conc Bex_def lang_port by auto

lemma lang_ha_end: "w \<in> lang ha_end \<longleftrightarrow> (\<exists>r. port_text r \<and> w = '' '' @ r @ [CHR 0x0D, CHR 0x0A])"
proof -
  have "lang (Cat (Ch 13 13) (Ch 10 10)) = {[CHR 0x0D, CHR 0x0A]}"
    unfolding lang.simps(3) flow_separators by (auto simp: conc_def)
  then show ?thesis
    unfolding ha_end_def lang.simps(3) [of "Ch 32 32"] lang.simps(3) [of port] flow_separators in_conc
      Bex_def lang_port by auto
qed

lemma lang_ha_to_end:
  "w \<in> lang ha_to_end \<longleftrightarrow>
    (\<exists>b \<in> lang IPaddress. \<exists>q. port_text q \<and>
      (\<exists>r. port_text r \<and> w = '' '' @ b @ '' '' @ q @ '' '' @ r @ [CHR 0x0D, CHR 0x0A]))"
proof
  assume "w \<in> lang ha_to_end"
  then show "\<exists>b \<in> lang IPaddress. \<exists>q. port_text q \<and>
      (\<exists>r. port_text r \<and> w = '' '' @ b @ '' '' @ q @ '' '' @ r @ [CHR 0x0D, CHR 0x0A])"
    unfolding ha_to_end_def lang.simps(3) flow_separators in_conc Bex_def lang_port lang_ha_end by auto
next
  assume "\<exists>b \<in> lang IPaddress. \<exists>q. port_text q \<and>
      (\<exists>r. port_text r \<and> w = '' '' @ b @ '' '' @ q @ '' '' @ r @ [CHR 0x0D, CHR 0x0A])"
  then obtain b q r where w: "w = '' '' @ b @ '' '' @ q @ '' '' @ r @ [CHR 0x0D, CHR 0x0A]"
    "b \<in> lang IPaddress" "port_text q" "port_text r" by blast
  then show "w \<in> lang ha_to_end"
    unfolding ha_to_end_def lang.simps(3) flow_separators w(1)
    by (intro concI) (auto simp: lang_port lang_ha_end)
qed

definition haproxy_line :: "string \<Rightarrow> string \<Rightarrow> string \<Rightarrow> string \<Rightarrow> string \<Rightarrow> string \<Rightarrow> bool" where
  "haproxy_line w h a b q r \<longleftrightarrow>
     w = h @ a @ '' '' @ b @ '' '' @ q @ '' '' @ r @ [CHR 0x0D, CHR 0x0A] \<and>
     ha_head h \<and> a \<in> lang IPaddress \<and> b \<in> lang IPaddress \<and> port_text q \<and> port_text r"

lemma ha_words:
  "w \<in> lang (ha_grammars ! 0) \<longleftrightarrow> (\<exists>h a. w = h @ a @ '' '' \<and> ha_head h \<and> a \<in> lang IPv4address)"
  "w \<in> lang (ha_grammars ! Suc 0) \<longleftrightarrow> (\<exists>h a. w = h @ a @ '' '' \<and> ha_head h \<and> a \<in> lang IPv6address)"
  "w \<in> lang (ha_grammars ! 2) \<longleftrightarrow>
    (\<exists>h a b q. w = h @ a @ '' '' @ b @ '' '' @ q \<and> ha_head h \<and> a \<in> lang IPaddress \<and>
      b \<in> lang IPaddress \<and> port_text q)"
  "w \<in> lang (ha_grammars ! 3) \<longleftrightarrow> (\<exists>h a b q r. haproxy_line w h a b q r)"
  "w \<in> lang (ha_grammars ! 4) \<longleftrightarrow> ha_head w"
  "w \<in> lang (ha_grammars ! 5) \<longleftrightarrow>
    (\<exists>h a b. w = h @ a @ '' '' @ b @ '' '' \<and> ha_head h \<and> a \<in> lang IPaddress \<and> b \<in> lang IPaddress)"
proof -
  have g: "ha_grammars ! 0 = Cat ha_start (Cat IPv4address (Ch 32 32))"
    "ha_grammars ! Suc 0 = Cat ha_start (Cat IPv6address (Ch 32 32))"
    "ha_grammars ! 2 = Cat ha_start (Cat IPaddress ha_to_port)"
    "ha_grammars ! 3 = Cat ha_start (Cat IPaddress ha_to_end)" "ha_grammars ! 4 = ha_start"
    "ha_grammars ! 5 = Cat ha_start (Cat IPaddress ha_address2)"
    by (simp_all add: ha_grammars_def)
  note u = lang.simps(3) flow_separators in_conc lang_ha_start Bex_def
  show "w \<in> lang (ha_grammars ! 0) \<longleftrightarrow> (\<exists>h a. w = h @ a @ '' '' \<and> ha_head h \<and> a \<in> lang IPv4address)"
    unfolding g u by auto
  show "w \<in> lang (ha_grammars ! Suc 0) \<longleftrightarrow> (\<exists>h a. w = h @ a @ '' '' \<and> ha_head h \<and> a \<in> lang IPv6address)"
    unfolding g u by auto
  show "w \<in> lang (ha_grammars ! 2) \<longleftrightarrow>
    (\<exists>h a b q. w = h @ a @ '' '' @ b @ '' '' @ q \<and> ha_head h \<and> a \<in> lang IPaddress \<and>
      b \<in> lang IPaddress \<and> port_text q)"
  proof
    assume "\<exists>h a b q. w = h @ a @ '' '' @ b @ '' '' @ q \<and> ha_head h \<and> a \<in> lang IPaddress \<and>
      b \<in> lang IPaddress \<and> port_text q"
    then show "w \<in> lang (ha_grammars ! 2)"
      unfolding g lang.simps(3) by (auto intro!: concI simp: lang_ha_start lang_ha_to_port; blast)
  qed (unfold g u lang_ha_to_port, auto)
  show "w \<in> lang (ha_grammars ! 3) \<longleftrightarrow> (\<exists>h a b q r. haproxy_line w h a b q r)"
  proof
    assume "\<exists>h a b q r. haproxy_line w h a b q r"
    then show "w \<in> lang (ha_grammars ! 3)"
      unfolding g lang.simps(3) haproxy_line_def
      by (auto intro!: concI simp: lang_ha_start lang_ha_to_end; blast)
  qed (unfold g u lang_ha_to_end haproxy_line_def, auto, blast)
  show "w \<in> lang (ha_grammars ! 4) \<longleftrightarrow> ha_head w"
    unfolding g lang_ha_start ..
  show "w \<in> lang (ha_grammars ! 5) \<longleftrightarrow>
    (\<exists>h a b. w = h @ a @ '' '' @ b @ '' '' \<and> ha_head h \<and> a \<in> lang IPaddress \<and> b \<in> lang IPaddress)"
  proof
    assume "\<exists>h a b. w = h @ a @ '' '' @ b @ '' '' \<and> ha_head h \<and> a \<in> lang IPaddress \<and> b \<in> lang IPaddress"
    then show "w \<in> lang (ha_grammars ! 5)"
      unfolding g lang.simps(3) by (auto intro!: concI simp: lang_ha_start lang_ha_address2)
  qed (unfold g u lang_ha_address2, auto)
qed

subsection \<open>The prefixes of a line\<close>

lemma ha_head_length: "ha_head h \<Longrightarrow> length h = 11"
  by (auto simp: ha_head_def)

text \<open>A space ends an address, and the head has a fixed length.\<close>

lemma ha_split_address:
  assumes "h @ a @ CHR '' '' # s = h' @ a' @ CHR '' '' # s'" and "ha_head h" and "ha_head h'"
    and "a \<in> lang IPaddress" and "a' \<in> lang IPaddress"
  shows "h = h' \<and> a = a' \<and> s = s'"
proof -
  have "h = h'" "a @ CHR '' '' # s = a' @ CHR '' '' # s'"
    using assms(1) ha_head_length [OF assms(2)] ha_head_length [OF assms(3)] by (auto simp: append_eq_append_conv)
  with append_sep_eq [OF this(2)] no_separator(2) assms(4,5) show ?thesis by blast
qed

lemma prefix_split: "take n w = u \<Longrightarrow> n \<le> length w \<Longrightarrow> w = u @ drop n w \<and> n = length u"
  by (metis append_take_drop_id length_take min.absorb2)

lemma ha_prefix_address:
  assumes "ha_head h" and "a \<in> lang IPaddress" and "n \<le> length (h @ a @ CHR '' '' # s)"
    and "\<And>x. R x \<Longrightarrow> x \<in> lang IPaddress"
  shows "(\<exists>k x. take n (h @ a @ CHR '' '' # s) = k @ x @ '' '' \<and> ha_head k \<and> R x) \<longleftrightarrow>
    n = length (h @ a) + 1 \<and> R a"
proof
  assume "\<exists>k x. take n (h @ a @ CHR '' '' # s) = k @ x @ '' '' \<and> ha_head k \<and> R x"
  then obtain k x where x: "take n (h @ a @ CHR '' '' # s) = k @ x @ '' ''" "ha_head k" "R x" by blast
  from prefix_split [OF x(1) assms(3)] have e: "h @ a @ CHR '' '' # s = k @ x @ CHR '' '' # drop n (h @ a @ CHR '' '' # s)"
    and n: "n = length (k @ x @ '' '')" by simp_all
  from ha_split_address [OF e assms(1) x(2) assms(2) assms(4) [OF x(3)]] n x(3)
  show "n = length (h @ a) + 1 \<and> R a" by simp
next
  assume "n = length (h @ a) + 1 \<and> R a"
  with assms(1) show "\<exists>k x. take n (h @ a @ CHR '' '' # s) = k @ x @ '' '' \<and> ha_head k \<and> R x"
    by (intro exI [of _ h] exI [of _ a]) simp
qed

lemma ha_prefix_two:
  assumes "ha_head h" and "a \<in> lang IPaddress" and "b \<in> lang IPaddress"
    and "n \<le> length (h @ a @ CHR '' '' # b @ CHR '' '' # s)"
  shows "(\<exists>k x y t. take n (h @ a @ CHR '' '' # b @ CHR '' '' # s) = k @ x @ '' '' @ y @ '' '' @ t \<and> ha_head k \<and>
      x \<in> lang IPaddress \<and> y \<in> lang IPaddress \<and> Q t) \<longleftrightarrow>
    length (h @ a @ '' '' @ b @ '' '') \<le> n \<and> Q (take (n - length (h @ a @ '' '' @ b @ '' '')) s)"
    (is "?l \<longleftrightarrow> ?r")
proof
  let ?w = "h @ a @ CHR '' '' # b @ CHR '' '' # s"
  assume ?l
  then obtain k x y t where x: "take n ?w = k @ x @ '' '' @ y @ '' '' @ t" "ha_head k"
    "x \<in> lang IPaddress" "y \<in> lang IPaddress" "Q t" by blast
  from prefix_split [OF x(1) assms(4)] have e: "?w = k @ x @ CHR '' '' # (y @ CHR '' '' # t @ drop n ?w)"
    and n: "n = length (k @ x @ '' '' @ y @ '' '' @ t)" by simp_all
  from ha_split_address [OF e assms(1) x(2) assms(2) x(3)]
  have h: "h = k" "a = x" and s: "b @ CHR '' '' # s = y @ CHR '' '' # t @ drop n ?w" by blast+
  from append_sep_eq [OF s] no_separator(2) assms(3) x(4) obtain z where b: "b = y" "s = t @ z" by blast
  have "take (n - length (h @ a @ '' '' @ b @ '' '')) s = t"
    unfolding b(2) using n h b(1) by simp
  with n h b(1) x(5) show ?r by simp
next
  assume r: ?r
  then obtain m where n: "n = length (h @ a @ '' '' @ b @ '' '') + m" using le_Suc_ex by blast
  have "take (length u + m) (u @ v) = u @ take m v" for u v :: string by simp
  from this [of "h @ a @ '' '' @ b @ '' ''" s]
  have "take n (h @ a @ CHR '' '' # b @ CHR '' '' # s) = h @ a @ '' '' @ b @ '' '' @ take m s"
    unfolding n by simp
  moreover have "Q (take m s)" using r unfolding n by simp
  ultimately show ?l using assms(1-3) by blast
qed

lemma ha_actions:
  assumes "rgl_run ha_blocks 1 w \<noteq> None" and "i < length w"
  shows "rgl_acts ha_blocks 1 w i =
    (if take i w \<in> lang (ha_grammars ! 4) then [Start_ip] else []) @
    (if take (Suc i) w \<in> lang (ha_grammars ! 0) then [Is_ipv4, End_ip] else []) @
    (if take (Suc i) w \<in> lang (ha_grammars ! Suc 0) then [Is_ipv6, End_ip] else []) @
    (if take i w \<in> lang (ha_grammars ! 5) then [Start_port] else []) @
    (if take (Suc i) w \<in> lang (ha_grammars ! 2) then [End_port] else []) @
    (if take (Suc i) w \<in> lang (ha_grammars ! 3) then [Finish] else [])"
proof -
  from assms(1) obtain t where "rgl_run ha_blocks 1 w = Some t" by blast
  from rgl_run_prefix [OF this assms(2)] obtain u as r where
    u: "rgl_run ha_blocks 1 (take i w) = Some u" "rgl_step ha_blocks u (schar (w ! i)) = Some (as, r)" .
  from ha.run_step_actions [OF u] obtain X Y where X: "ha.follows (take i w) X"
    and Y: "ha.follows (take i w @ [w ! i]) Y" and ok: "ha_acts_ok as X Y" by blast
  have lX: "length X = 6" and lY: "length Y = 6" using X Y by (simp_all add: ha.follows_def)
  obtain x0 x1 x2 x3 x4 x5 where Xs: "X = [x0, x1, x2, x3, x4, x5]"
    using lX by (auto simp: length_Suc_conv eval_nat_numeral)
  obtain y0 y1 y2 y3 y4 y5 where Ys: "Y = [y0, y1, y2, y3, y4, y5]"
    using lY by (auto simp: length_Suc_conv eval_nat_numeral)
  note ax = ha.follows_accepts [OF X] and ay = ha.follows_accepts [OF Y, folded nth_take_Suc [OF assms(2)]]
  from ax [of 4] ax [of 5] ay [of 0] ay [of "Suc 0"] ay [of 2] ay [of 3]
  have "stacks_null x4 \<longleftrightarrow> take i w \<in> lang (ha_grammars ! 4)"
    "stacks_null x5 \<longleftrightarrow> take i w \<in> lang (ha_grammars ! 5)"
    "stacks_null y0 \<longleftrightarrow> take (Suc i) w \<in> lang (ha_grammars ! 0)"
    "stacks_null y1 \<longleftrightarrow> take (Suc i) w \<in> lang (ha_grammars ! Suc 0)"
    "stacks_null y2 \<longleftrightarrow> take (Suc i) w \<in> lang (ha_grammars ! 2)"
    "stacks_null y3 \<longleftrightarrow> take (Suc i) w \<in> lang (ha_grammars ! 3)"
    by (simp_all add: Xs Ys)
  then show ?thesis using ok by (simp add: rgl_acts_def u ha_acts_ok_def Xs Ys)
qed

subsection \<open>Complete lines\<close>

lemma haproxy_line_run: "haproxy_line w h a b q r \<Longrightarrow> rgl_run ha_blocks 1 w \<noteq> None"
proof -
  assume "haproxy_line w h a b q r"
  then have "\<exists>h a b q r. haproxy_line w h a b q r" by blast
  then have "w @ [] \<in> lang (ha_grammars ! 3)" by (simp only: ha_words append_Nil2)
  then show ?thesis unfolding ha.run_viable length_ha_grammars
    by (intro exI [of _ 3] conjI exI [of _ "[]"]) simp_all
qed

text \<open>What a line and a word of the first grammars share has no line end in it.\<close>

lemma ha_no_line_end:
  assumes "w \<in> lang (ha_grammars ! k)" and "k < 6" and "k \<noteq> 3"
  shows "CHR 0x0D \<notin> set w"
proof -
  have k: "k = 0 \<or> k = 1 \<or> k = 2 \<or> k = 4 \<or> k = 5" using assms(2,3) by auto
  have "rx_within [(32, 32), (46, 58), (65, 90), (97, 102)] (ha_grammars ! k)"
    using k by (elim disjE) (simp_all add: ha_grammars_def flow_grammar_defs ip_grammar_defs Lit_codes)
  from rx_within_correct [OF this assms(1)] show ?thesis
    by (auto simp: list_all_iff in_ranges_def schar_def)
qed

lemma haproxy_line_last:
  assumes "haproxy_line w h a b q r"
  obtains u where "w = u @ [CHR 0x0D, CHR 0x0A]" "CHR 0x0D \<notin> set u"
proof -
  have l: "w = h @ a @ '' '' @ b @ '' '' @ q @ '' '' @ r @ [CHR 0x0D, CHR 0x0A]" "ha_head h"
    "a \<in> lang IPaddress" "b \<in> lang IPaddress" "port_text q" "port_text r"
    using assms by (simp_all add: haproxy_line_def)
  have "CHR 0x0D \<notin> set q" "CHR 0x0D \<notin> set r"
    using l(5,6) by (simp_all add: port_text_def port_no_separator)
  moreover have "CHR 0x0D \<notin> set h" using l(2) by (auto simp: ha_head_def)
  ultimately show thesis
    using that [of "h @ a @ '' '' @ b @ '' '' @ q @ '' '' @ r"] no_separator(3) l(1,3,4) by simp
qed

lemma haproxy_line_stops:
  assumes "haproxy_line w h a b q r"
  shows "rgl_run ha_blocks 1 (w @ [c]) = None"
proof (rule ccontr)
  assume "rgl_run ha_blocks 1 (w @ [c]) \<noteq> None"
  then obtain k v where k: "k < 6" "(w @ [c]) @ v \<in> lang (ha_grammars ! k)"
    unfolding ha.run_viable by auto
  from haproxy_line_last [OF assms] obtain u where u: "w = u @ [CHR 0x0D, CHR 0x0A]" "CHR 0x0D \<notin> set u" .
  show False
  proof (cases "k = 3")
    case False
    from ha_no_line_end [OF k(2,1) False] u(1) show False by simp
  next
    case True
    with k(2) obtain h' a' b' q' r' where "haproxy_line (w @ c # v) h' a' b' q' r'"
      by (auto simp: ha_words)
    from haproxy_line_last [OF this] obtain x where x: "w @ c # v = x @ [CHR 0x0D, CHR 0x0A]" "CHR 0x0D \<notin> set x" .
    then have "u @ CHR 0x0D # (CHR 0x0A # c # v) = x @ CHR 0x0D # [CHR 0x0A]" using u(1) by simp
    from append_sep_eq [OF this u(2) x(2)] show False by simp
  qed
qed

lemma haproxy_line_data:
  assumes "haproxy_line w h a b q r"
  shows "flow_data ha_blocks 1 w =
    (\<lparr>valid = 0, ip_type = Some (address_type a), ip_s = 11, ip_len = length a,
      port_s = 13 + (length a + length b), port_len = length q\<rparr>, True)"
proof -
  let ?p0 = "13 + (length a + length b)"
  let ?e = "q @ '' '' @ r @ [CHR 0x0D, CHR 0x0A]"
  let ?E = "\<lambda>i. take (Suc i) w \<in> lang (ha_grammars ! 2) \<and> i < length w"
  let ?F = "\<lambda>i. take (Suc i) w \<in> lang (ha_grammars ! 3)"
  have l: "w = h @ a @ CHR '' '' # b @ CHR '' '' # ?e" "ha_head h"
    "a \<in> lang IPaddress" "b \<in> lang IPaddress" "port_text q" "port_text r"
    using assms by (simp_all add: haproxy_line_def)
  note h = ha_head_length [OF l(2)]
  note one = ha_prefix_address [OF l(2,3), where s = "b @ CHR '' '' # ?e", folded l(1)]
  note two = ha_prefix_two [OF l(2,3,4), where s = ?e, folded l(1)]
  have head: "take i w \<in> lang (ha_grammars ! 4) \<longleftrightarrow> i = 11" if "i < length w" for i
  proof
    assume "take i w \<in> lang (ha_grammars ! 4)"
    then show "i = 11" using ha_head_length [of "take i w"] that by (simp add: ha_words)
  next
    assume "i = 11"
    then show "take i w \<in> lang (ha_grammars ! 4)" using l(2) h by (simp add: ha_words l(1))
  qed
  have p2: "take n w \<in> lang (ha_grammars ! 2) \<longleftrightarrow> ?p0 \<le> n \<and> port_text (take (n - ?p0) ?e)"
    if "n \<le> length w" for n
    using two [of n port_text] that h by (simp add: ha_words conj_ac)
  have p5: "take n w \<in> lang (ha_grammars ! 5) \<longleftrightarrow> n = ?p0" if "n < length w" for n
    using two [of n "\<lambda>t. t = []"] that h port_text_nonempty [OF l(5)] by (auto simp: ha_words)
  have v4: "take (Suc i) w \<in> lang (ha_grammars ! 0) \<longleftrightarrow> i = 11 + length a \<and> address_type a = ip_type_ipv4'"
    and v6: "take (Suc i) w \<in> lang (ha_grammars ! Suc 0) \<longleftrightarrow> i = 11 + length a \<and> address_type a = ip_type_ipv6'"
    if "i < length w" for i
    using one [of "Suc i" "\<lambda>x. x \<in> lang IPv4address"] one [of "Suc i" "\<lambda>x. x \<in> lang IPv6address"]
      that h l(3) IPv4_not_IPv6 by (auto simp: ha_words IPaddress_cases address_type_def)
  have acts: "rgl_acts ha_blocks 1 w i = line_acts 11 (11 + length a) ?p0 (address_type a) ?E ?F i"
    if i: "i < length w" for i
    unfolding ha_actions [OF haproxy_line_run [OF assms] i] head [OF i] v4 [OF i] v6 [OF i] p5 [OF i]
    using i by (simp add: line_acts_def)
  have q: "0 < length q" by (rule port_text_nonempty [OF l(5)])
  have E0: "?p0 \<le> i" if "?E i" for i
  proof (rule ccontr)
    assume "\<not> ?p0 \<le> i"
    then have "Suc i - ?p0 = 0" by simp
    with p2 [of "Suc i"] that show False using port_text_nonempty [of "[]"] by auto
  qed
  have E1: "\<not> ?E i" if "?p0 + length q \<le> i" for i
  proof
    assume E: "?E i"
    from that obtain m where i: "i = ?p0 + length q + m" using le_Suc_ex by blast
    from E p2 [of "Suc i"] have "port_text (take (length q + Suc m) ?e)" by (simp add: i)
    then have "port_text (q @ CHR '' '' # take m (r @ [CHR 0x0D, CHR 0x0A]))" by simp
    then show False using port_no_separator(1) [of "q @ CHR '' '' # take m (r @ [CHR 0x0D, CHR 0x0A])"]
      by (simp add: port_text_def)
  qed
  have E2: "?E (?p0 + length q - 1)"
    using p2 [of "?p0 + length q"] q l(5) h by (simp add: l(1))
  have n: "?p0 + length q \<le> length w" using h by (simp add: l(1))
  have "flow_data ha_blocks 1 w =
    flow_run (line_acts 11 (11 + length a) ?p0 (address_type a) ?E ?F) (length w)"
    unfolding flow_data_def by (rule flow_run_cong) (rule acts)
  also have "\<dots> = (\<lparr>valid = 0, ip_type = Some (address_type a), ip_s = 11, ip_len = 11 + length a - 11,
      port_s = ?p0, port_len = ?p0 + length q - ?p0\<rparr>, \<exists>i < length w. ?F i)"
    using IPaddress_nonempty [OF l(3)] q
    by (intro flow_run_line [where E = ?E and ?p1.0 = "?p0 + length q"] n E0 E2 E1) simp_all
  also have "\<exists>i < length w. ?F i"
  proof (intro exI conjI)
    show "length w - 1 < length w" using n q by auto
    have w: "take (Suc (length w - 1)) w = w" using n q by simp
    show "?F (length w - 1)" unfolding w ha_words using assms by blast
  qed
  then have "(\<exists>i < length w. ?F i) = True" by simp
  finally show ?thesis by simp
qed

lemma haproxy_execute_line:
  assumes "haproxy_line u h a b q r"
  shows "struct_haproxy_protocol_parser_execute (u @ v) =
    \<lparr>valid = 1, ip_type = Some (address_type a), ip_s = 11, ip_len = length a,
     port_s = 13 + (length a + length b), port_len = length q, total_len = length u\<rparr>"
proof -
  have stop: "v = [] \<or> rgl_run ha_blocks 1 (u @ [hd v]) = None"
    using haproxy_line_stops [OF assms] by (cases v) simp_all
  have "length h = 11" "length a \<le> 45" "length b \<le> 45" "length q \<le> 5" "length r \<le> 5"
    using assms ha_head_length IPaddress_length by (auto simp: haproxy_line_def port_text_def)
  then have "length u < 65536" using assms by (simp add: haproxy_line_def)
  then show ?thesis
    using flow_exec_stops [OF haproxy_line_run [OF assms] stop]
    by (auto simp: struct_haproxy_protocol_parser_execute_def haproxy_line_data [OF assms] split: prod.splits)
qed

lemma haproxy_execute_valid:
  "valid (struct_haproxy_protocol_parser_execute str) =
    (if \<exists>u v h a b q r. str = u @ v \<and> haproxy_line u h a b q r then 1 else 0)"
proof (cases "\<exists>u v h a b q r. str = u @ v \<and> haproxy_line u h a b q r")
  case True
  then obtain u v h a b q r where "str = u @ v" "haproxy_line u h a b q r" by blast
  with True show ?thesis using haproxy_execute_line [of u h a b q r v] by simp
next
  case False
  obtain w v where w: "str = w @ v" "rgl_run ha_blocks 1 w \<noteq> None"
    "v = [] \<or> rgl_run ha_blocks 1 (w @ [hd v]) = None"
    using rgl_run_longest by blast
  obtain t f where tf: "flow_data ha_blocks 1 w = (t, f)" by (cases "flow_data ha_blocks 1 w")
  have "valid t = 0" using flow_data_valid [of ha_blocks 1 w] by (simp add: tf)
  moreover have "\<not> f"
  proof
    assume f
    then have "snd (flow_data ha_blocks 1 w)" by (simp add: tf)
    then obtain i where i: "i < length w" "Finish \<in> set (rgl_acts ha_blocks 1 w i)"
      by (auto simp: flow_data_def flow_run_finished)
    then have "take (Suc i) w \<in> lang (ha_grammars ! 3)"
      unfolding ha_actions [OF w(2) i(1)] by (auto split: if_splits)
    moreover have "str = take (Suc i) w @ (drop (Suc i) w @ v)" by (simp add: w(1))
    ultimately show False using False by (auto simp: ha_words)
  qed
  moreover have "snd (rgl_exec ha_blocks flow_act 1 0 str (flow_init, False)) = (length w, t, f)"
    unfolding w(1) tf [symmetric] by (rule flow_exec_stops [OF w(2,3)])
  ultimately show ?thesis
    using False by (auto simp: struct_haproxy_protocol_parser_execute_def split: prod.splits)
qed

subsection \<open>The Ruby method\<close>

lemma Utils_parser_line:
  assumes "haproxy_line u h a b q r"
  shows "Utils_parser_haproxy_protocol (Str (u @ v)) =
    Inr (Ary [Fix (int (length u)), address_symbol a, Str a, Fix (int (dec_val q))])"
proof -
  have t: "u = h @ a @ '' '' @ b @ '' '' @ q @ '' '' @ r @ [CHR 0x0D, CHR 0x0A]" "port_text q" "length h = 11"
    using assms ha_head_length by (simp_all add: haproxy_line_def)
  have a: "take (length a) (drop 11 (u @ v)) = a"
    using drop_append [of 11 h] t(3) by (simp add: t(1))
  have q: "take (length q) (drop (13 + (length a + length b)) (u @ v)) = q"
  proof -
    have "u @ v = (h @ a @ '' '' @ b @ '' '') @ q @ ('' '' @ r @ [CHR 0x0D, CHR 0x0A] @ v)" by (simp add: t(1))
    moreover have "13 + (length a + length b) = length (h @ a @ '' '' @ b @ '' '')" using t(3) by simp
    ultimately show ?thesis by (metis append_eq_conv_conj)
  qed
  show ?thesis
    using port_str_to_int [OF t(2)] a q
    by (simp add: haproxy_execute_line [OF assms] Let_def address_symbol_def address_type_def)
qed

lemma Utils_parser_no_line:
  "Utils_parser_haproxy_protocol (Str str) = Inr Qfalse \<longleftrightarrow>
    \<not> (\<exists>u v h a b q r. str = u @ v \<and> haproxy_line u h a b q r)"
proof (cases "\<exists>u v h a b q r. str = u @ v \<and> haproxy_line u h a b q r")
  case True
  then obtain u v h a b q r where "str = u @ v" "haproxy_line u h a b q r" by blast
  with True show ?thesis
    using Utils_parser_line [of u h a b q r v] by (simp del: Utils_parser_haproxy_protocol.simps)
next
  case False
  then have "valid (struct_haproxy_protocol_parser_execute str) = 0"
    by (simp only: haproxy_execute_valid if_False)
  with False show ?thesis by (simp add: Let_def)
qed

text \<open>
  C19.  A String is taken for a HAProxy line exactly when it starts with a complete one: the head, two
  IP addresses, two ports from 1 to 65535 and the line end; \<open>parse_haproxy_protocol\<close> is false for
  all other Strings.
\<close>

theorem struct_haproxy_protocol_parser_execute_valid:
  "valid (struct_haproxy_protocol_parser_execute str) =
     (if \<exists>u v h a b q r. str = u @ v \<and> haproxy_line u h a b q r then 1 else 0) \<and>
   (Utils_parser_haproxy_protocol (Str str) = Inr Qfalse) =
     (\<not> (\<exists>u v h a b q r. str = u @ v \<and> haproxy_line u h a b q r))"
  using haproxy_execute_valid Utils_parser_no_line by blast

text \<open>
  C4.  Whatever follows a complete line, the struct holds the family and the exact positions of the
  first address and of the first port, and \<open>total_len\<close> is the length of the line: its 16 bits are
  enough.  \<open>parse_haproxy_protocol\<close> returns the length of the line to cut off, the family, the
  address and the number of the port.
\<close>

theorem struct_haproxy_protocol_parser_execute_line:
  assumes "haproxy_line u h a b q r"
  shows "struct_haproxy_protocol_parser_execute (u @ v) =
      \<lparr>valid = 1, ip_type = Some (address_type a), ip_s = 11, ip_len = length a,
       port_s = length a + length b + 13, port_len = length q, total_len = length u\<rparr> \<and>
    Utils_parser_haproxy_protocol (Str (u @ v)) =
      Inr (Ary [Fix (int (length u)), address_symbol a, Str a, Fix (int (dec_val q))])"
proof
  show "struct_haproxy_protocol_parser_execute (u @ v) =
      \<lparr>valid = 1, ip_type = Some (address_type a), ip_s = 11, ip_len = length a,
       port_s = length a + length b + 13, port_len = length q, total_len = length u\<rparr>"
    using haproxy_execute_line [OF assms, of v] by (simp add: ac_simps)
qed (rule Utils_parser_line [OF assms])

lemma ha_example_addresses:
  "''1.2.3.4'' \<in> lang IPv4address" "''::1'' \<in> lang IPv6address" "''::1'' \<notin> lang IPv4address"
  by (simp_all only: ip_match cong: cert_cong)

lemma ha_example_ports: "port_text ''5060''" "port_text ''80''"
  by (simp_all add: port_text_def is_digit_def schar_def dec_val_def digit_val_def)

text \<open>
  C40.  The digit of the head is not compared with the addresses: a line with head \<open>TCP4\<close> and an
  IPv6 address for the client is taken, and so is one with two families.
\<close>

theorem haproxy_family_not_checked:
  "Utils_parser_haproxy_protocol
     (Str (''PROXY TCP4 ::1 1.2.3.4 5060 80'' @ [CHR 0x0D, CHR 0x0A])) =
   Inr (Ary [Fix 32, Sym ''ipv6'', Str ''::1'', Fix 5060])"
proof -
  let ?u = "''PROXY TCP4 ::1 1.2.3.4 5060 80'' @ [CHR 0x0D, CHR 0x0A]"
  have "haproxy_line ?u ''PROXY TCP4 '' ''::1'' ''1.2.3.4'' ''5060'' ''80''"
    using ha_example_addresses ha_example_ports by (simp add: haproxy_line_def ha_head_def IPaddress_cases)
  from Utils_parser_line [OF this, of "[]"] show ?thesis
    using ha_example_addresses(3)
    by (simp add: address_symbol_def dec_val_def digit_val_def schar_def del: Utils_parser_haproxy_protocol.simps)
qed

theorem struct_haproxy_protocol_parser_execute_line_witness:
  "Utils_parser_haproxy_protocol
     (Str ((''PROXY TCP4 1.2.3.4 1.2.3.4 5060 80'' @ [CHR 0x0D, CHR 0x0A]) @ ''OPTIONS'')) =
   Inr (Ary [Fix 36, Sym ''ipv4'', Str ''1.2.3.4'', Fix 5060])"
proof -
  have "haproxy_line (''PROXY TCP4 1.2.3.4 1.2.3.4 5060 80'' @ [CHR 0x0D, CHR 0x0A])
    ''PROXY TCP4 '' ''1.2.3.4'' ''1.2.3.4'' ''5060'' ''80''"
    using ha_example_addresses ha_example_ports by (simp add: haproxy_line_def ha_head_def IPaddress_cases)
  from struct_haproxy_protocol_parser_execute_line [OF this, of "''OPTIONS''", THEN conjunct2]
  show ?thesis
    using ha_example_addresses(1)
    by (simp add: address_symbol_def dec_val_def digit_val_def schar_def del: Utils_parser_haproxy_protocol.simps)
qed

end
