(* ===== verification/Ragel_Table.thy ===== *)
theory Ragel_Table
  imports Prelude "HOL-Library.Monad_Syntax"
begin

text \<open>
  The shape of the C that \<open>ragel -T0\<close> emits (ext/websocket_http_parser/ws_http_parser.c and
  ext/sip_parser/sip_message_parser.c): the state machine is a set of constant arrays, and one
  loop searches the keys of the current state with two binary searches, first among the single
  characters, then among the ranges.  Arrays are lists, pointers into them are indices; a read
  outside an array is \<open>None\<close>, so a result \<open>Some\<close> says that every read was inside.  The second half
  reads the arrays as rows, one per state, and shows that the search finds what the row says.
\<close>

record rgl_tables =
  t_actions :: "int list"
  t_key_offsets :: "int list"
  t_trans_keys :: "int list"
  t_single_lengths :: "int list"
  t_range_lengths :: "int list"
  t_index_offsets :: "int list"
  t_indicies :: "int list"
  t_trans_targs :: "int list"
  t_trans_actions :: "int list"

definition rd :: "int list \<Rightarrow> int \<Rightarrow> int option" where
  "rd xs i = (if 0 \<le> i \<and> i < int (length xs) then Some (xs ! nat i) else None)"

subsection \<open>The search of a state's keys\<close>

text \<open>
  The loop over the single keys: \<open>lower\<close> and \<open>upper\<close> are the pointers \<open>_lower\<close> and \<open>_upper\<close>.
  The result is the place of the key found, \<open>Some None\<close> when there is none.
\<close>

function find_single :: "int list \<Rightarrow> int \<Rightarrow> int \<Rightarrow> int \<Rightarrow> int option option" where
  "find_single keys lower upper c =
     (if upper < lower then Some None
      else
        let mid = lower + (upper - lower) div 2
        in (case rd keys mid of
              None \<Rightarrow> None
            | Some k \<Rightarrow>
                if c < k then find_single keys lower (mid - 1) c
                else if k < c then find_single keys (mid + 1) upper c
                else Some (Some mid)))"
  by pat_completeness auto
termination by (relation "measure (\<lambda>(keys, lower, upper, c). nat (upper - lower + 1))") auto

declare find_single.simps [simp del]

lemma range_mid:
  assumes "lower \<le> (upper :: int)"
  shows "lower \<le> lower + ((upper - lower) div 2 - (upper - lower) div 2 mod 2)"
    "lower + ((upper - lower) div 2 - (upper - lower) div 2 mod 2) \<le> upper"
proof -
  let ?h = "(upper - lower) div 2"
  have "0 \<le> ?h" "?h \<le> upper - lower" using assms by simp_all
  moreover from this have "0 \<le> ?h mod 2" "?h mod 2 \<le> ?h" by (simp_all add: zmod_le_nonneg_dividend)
  ultimately show "lower \<le> lower + (?h - ?h mod 2)" "lower + (?h - ?h mod 2) \<le> upper" by linarith+
qed

text \<open>
  The loop over the ranges, two keys each; \<open>& ~1\<close> clears the lowest bit of the half distance.
\<close>

function find_range :: "int list \<Rightarrow> int \<Rightarrow> int \<Rightarrow> int \<Rightarrow> int option option" where
  "find_range keys lower upper c =
     (if upper < lower then Some None
      else
        let half = (upper - lower) div 2; mid = lower + (half - half mod 2)
        in (case (rd keys mid, rd keys (mid + 1)) of
              (Some k0, Some k1) \<Rightarrow>
                if c < k0 then find_range keys lower (mid - 2) c
                else if k1 < c then find_range keys (mid + 2) upper c
                else Some (Some mid)
            | _ \<Rightarrow> None))"
  by pat_completeness auto
termination
proof (relation "measure (\<lambda>(keys, lower, upper, c). nat (upper - lower + 1))", goal_cases)
  case (2 keys lower upper c half mid)
  then have "lower \<le> mid" "mid \<le> upper" using range_mid [of lower upper] by simp_all
  then show ?case by simp
next
  case (3 keys lower upper c half mid)
  then have "lower \<le> mid" "mid \<le> upper" using range_mid [of lower upper] by simp_all
  then show ?case by simp
qed simp

declare find_range.simps [simp del]

text \<open>From \<open>_resume\<close> to \<open>_match\<close>: the place in \<open>indicies\<close> of the transition on \<open>c\<close>.\<close>

definition t0_match :: "rgl_tables \<Rightarrow> int \<Rightarrow> int \<Rightarrow> int option" where
  "t0_match T cs c = do {
     keys \<leftarrow> rd (t_key_offsets T) cs;
     trans \<leftarrow> rd (t_index_offsets T) cs;
     klen \<leftarrow> rd (t_single_lengths T) cs;
     single \<leftarrow> (if klen > 0 then find_single (t_trans_keys T) keys (keys + klen - 1) c else Some None);
     (case single of
        Some mid \<Rightarrow> Some (trans + (mid - keys))
      | None \<Rightarrow> do {
          let keys = (if klen > 0 then keys + klen else keys);
          let trans = (if klen > 0 then trans + klen else trans);
          klen \<leftarrow> rd (t_range_lengths T) cs;
          range \<leftarrow> (if klen > 0 then find_range (t_trans_keys T) keys (keys + klen * 2 - 2) c
                    else Some None);
          (case range of
             Some mid \<Rightarrow> Some (trans + (mid - keys) div 2)
           | None \<Rightarrow> Some (if klen > 0 then trans + klen else trans))
        })
   }"

text \<open>The actions of a transition: their number, then their codes, in \<open>actions\<close>.\<close>

definition t0_acts_at :: "rgl_tables \<Rightarrow> int \<Rightarrow> int list option" where
  "t0_acts_at T a =
     (if a = 0 then Some []
      else do {
        nacts \<leftarrow> rd (t_actions T) a;
        (if 0 \<le> nacts \<and> a + nacts < int (length (t_actions T))
         then Some (take (nat nacts) (drop (nat (a + 1)) (t_actions T))) else None)
      })"

text \<open>One turn of the loop: the next state and the codes of the actions to run.\<close>

definition t0_step :: "rgl_tables \<Rightarrow> int \<Rightarrow> int \<Rightarrow> (int \<times> int list) option" where
  "t0_step T cs c = do {
     place \<leftarrow> t0_match T cs c;
     trans \<leftarrow> rd (t_indicies T) place;
     targ \<leftarrow> rd (t_trans_targs T) trans;
     a \<leftarrow> rd (t_trans_actions T) trans;
     acts \<leftarrow> t0_acts_at T a;
     Some (targ, acts)
   }"

subsection \<open>The loop over the characters\<close>

text \<open>
  The actions of one transition in turn; an action that says so leaves the loop at once
  (\<open>p++; goto _out\<close>).  The data is what the actions read and write, \<open>p\<close> the position of the
  character.
\<close>

fun t0_acts ::
  "(int \<Rightarrow> nat \<Rightarrow> 'd \<Rightarrow> ('d \<times> bool) option) \<Rightarrow> nat \<Rightarrow> int list \<Rightarrow> 'd \<Rightarrow> ('d \<times> bool) option" where
  "t0_acts act p [] d = Some (d, False)"
| "t0_acts act p (a # as) d =
     (case act a p d of
        None \<Rightarrow> None
      | Some (d', out) \<Rightarrow> if out then Some (d', True) else t0_acts act p as d')"

text \<open>
  The loop: the characters from \<open>p\<close> up to \<open>pe\<close> are the list.  The result is the state, the final
  position of \<open>p\<close> and the data.  The step may look at the data: a condition of the grammar does.
\<close>

fun t0_exec ::
  "('d \<Rightarrow> int \<Rightarrow> int \<Rightarrow> (int \<times> int list) option) \<Rightarrow> (int \<Rightarrow> nat \<Rightarrow> 'd \<Rightarrow> ('d \<times> bool) option) \<Rightarrow>
   int \<Rightarrow> nat \<Rightarrow> string \<Rightarrow> 'd \<Rightarrow> (int \<times> nat \<times> 'd) option" where
  "t0_exec step act cs p [] d = Some (cs, p, d)"
| "t0_exec step act cs p (c # w) d =
     (if cs = 0 then Some (cs, p, d)
      else
        (case step d cs (schar c) of
           None \<Rightarrow> None
         | Some (cs', as) \<Rightarrow>
             (case t0_acts act p as d of
                None \<Rightarrow> None
              | Some (d', out) \<Rightarrow>
                  if out then Some (cs', p + 1, d')
                  else if cs' = 0 then Some (cs', p, d')
                  else t0_exec step act cs' (p + 1) w d')))"

lemma t0_exec_pos: "t0_exec step act cs p w d = Some (cs', q, d') \<Longrightarrow> p \<le> q \<and> q \<le> p + length w"
  by (induction w arbitrary: cs p d) (fastforce split: option.splits if_splits)+

subsection \<open>The binary searches find the key\<close>

lemma rd_nth: "0 \<le> i \<Longrightarrow> i < int (length xs) \<Longrightarrow> rd xs i = Some (xs ! nat i)"
  by (simp add: rd_def)

lemma rd_int [simp]: "i < length xs \<Longrightarrow> rd xs (int i) = Some (xs ! i)"
  by (simp add: rd_def)

lemma find_single_spec:
  assumes "0 \<le> lower" and "upper < int (length keys)"
    and "\<And>i j. lower \<le> i \<Longrightarrow> i < j \<Longrightarrow> j \<le> upper \<Longrightarrow> keys ! nat i < keys ! nat j"
  obtains (found) m where "find_single keys lower upper c = Some (Some m)" "lower \<le> m" "m \<le> upper"
      "keys ! nat m = c"
    | (absent) "find_single keys lower upper c = Some None"
      "\<And>i. lower \<le> i \<Longrightarrow> i \<le> upper \<Longrightarrow> keys ! nat i \<noteq> c"
  using assms
proof (induction keys lower upper c arbitrary: thesis rule: find_single.induct)
  case (1 keys lower upper c)
  show ?case
  proof (cases "upper < lower")
    case True
    then show ?thesis by (intro "1.prems"(2)) (simp_all add: find_single.simps [of keys lower upper])
  next
    case False
    define mid where "mid = lower + (upper - lower) div 2"
    have mid: "lower \<le> mid" "mid \<le> upper" using False by (simp_all add: mid_def)
    have r: "rd keys mid = Some (keys ! nat mid)" using mid "1.prems"(3,4) by (simp add: rd_nth)
    have unfold: "find_single keys lower upper c =
      (if c < keys ! nat mid then find_single keys lower (mid - 1) c
       else if keys ! nat mid < c then find_single keys (mid + 1) upper c else Some (Some mid))"
      using False r by (simp add: find_single.simps [of keys lower upper] mid_def [symmetric] Let_def)
    consider (lt) "c < keys ! nat mid" | (gt) "keys ! nat mid < c" | (eq) "keys ! nat mid = c"
      by linarith
    then show ?thesis
    proof cases
      case eq
      then show ?thesis using mid unfold by (intro "1.prems"(1)) simp_all
    next
      case lt
      show ?thesis
      proof (rule "1.IH"(1) [OF False mid_def r lt])
        fix m assume "find_single keys lower (mid - 1) c = Some (Some m)" "lower \<le> m" "m \<le> mid - 1"
          "keys ! nat m = c"
        then show thesis using lt mid unfold by (intro "1.prems"(1)) simp_all
      next
        assume a: "find_single keys lower (mid - 1) c = Some None"
          "\<And>i. lower \<le> i \<Longrightarrow> i \<le> mid - 1 \<Longrightarrow> keys ! nat i \<noteq> c"
        show thesis
        proof (rule "1.prems"(2))
          show "find_single keys lower upper c = Some None" using a(1) lt unfold by simp
          fix i assume "lower \<le> i" "i \<le> upper"
          then show "keys ! nat i \<noteq> c"
            using a(2) [of i] lt "1.prems"(5) [of mid i] mid by (cases "i \<le> mid - 1"; cases "i = mid") auto
        qed
      qed (use mid "1.prems"(3-5) in auto)
    next
      case gt
      then have ngt: "\<not> c < keys ! nat mid" by simp
      show ?thesis
      proof (rule "1.IH"(2) [OF False mid_def r ngt gt])
        fix m assume "find_single keys (mid + 1) upper c = Some (Some m)" "mid + 1 \<le> m" "m \<le> upper"
          "keys ! nat m = c"
        then show thesis using gt mid unfold by (intro "1.prems"(1)) simp_all
      next
        assume a: "find_single keys (mid + 1) upper c = Some None"
          "\<And>i. mid + 1 \<le> i \<Longrightarrow> i \<le> upper \<Longrightarrow> keys ! nat i \<noteq> c"
        show thesis
        proof (rule "1.prems"(2))
          show "find_single keys lower upper c = Some None" using a(1) gt unfold by simp
          fix i assume "lower \<le> i" "i \<le> upper"
          then show "keys ! nat i \<noteq> c"
            using a(2) [of i] gt "1.prems"(5) [of i mid] mid by (cases "mid + 1 \<le> i"; cases "i = mid") auto
        qed
      qed (use mid "1.prems"(3-5) in auto)
    qed
  qed
qed


lemma find_range_spec:
  assumes "0 \<le> lower" and "lower + 2 * n + 1 < int (length keys)" and "-1 \<le> n" and "upper = lower + 2 * n"
    and "\<And>i j. lower \<le> i \<Longrightarrow> i < j \<Longrightarrow> j \<le> upper + 1 \<Longrightarrow> keys ! nat i \<le> keys ! nat j"
  obtains (found) m where "find_range keys lower upper c = Some (Some (lower + 2 * m))" "0 \<le> m" "m \<le> n"
      "keys ! nat (lower + 2 * m) \<le> c" "c \<le> keys ! nat (lower + 2 * m + 1)"
    | (absent) "find_range keys lower upper c = Some None"
      "\<And>i. 0 \<le> i \<Longrightarrow> i \<le> n \<Longrightarrow> c < keys ! nat (lower + 2 * i) \<or> keys ! nat (lower + 2 * i + 1) < c"
  using assms
proof (induction keys lower upper c arbitrary: n thesis rule: find_range.induct)
  case (1 keys lower upper c)
  note le = "1.prems"(7)
  show ?case
  proof (cases "upper < lower")
    case True
    have "find_range keys lower upper c = Some None"
      using True by (simp add: find_range.simps [of keys lower upper])
    then show ?thesis using True "1.prems"(6) by (intro "1.prems"(2)) simp_all
  next
    case False
    define half where "half = (upper - lower) div 2"
    define mid where "mid = lower + (half - half mod 2)"
    have hn: "half = n" by (simp add: half_def "1.prems"(6))
    have n0: "0 \<le> n" using False "1.prems"(6) by simp
    have "2 * (n div 2) = n - n mod 2" by (simp add: minus_mod_eq_mult_div)
    then have km: "mid = lower + 2 * (n div 2)" by (simp add: mid_def hn)
    define q where "q = n div 2"
    have mid: "mid = lower + 2 * q" using km by (simp add: q_def)
    have q: "0 \<le> q" "q \<le> n" using n0 by (simp_all add: q_def)
    have r: "rd keys mid = Some (keys ! nat mid)" "rd keys (mid + 1) = Some (keys ! nat (mid + 1))"
      using mid q "1.prems"(3,4) by (simp_all add: rd_nth)
    have unfold: "find_range keys lower upper c =
      (if c < keys ! nat mid then find_range keys lower (mid - 2) c
       else if keys ! nat (mid + 1) < c then find_range keys (mid + 2) upper c else Some (Some mid))"
      using False r
      by (simp add: find_range.simps [of keys lower upper] half_def [symmetric] mid_def [symmetric] Let_def)
    consider (lt) "c < keys ! nat mid" | (gt) "\<not> c < keys ! nat mid" "keys ! nat (mid + 1) < c"
      | (eq) "keys ! nat mid \<le> c" "c \<le> keys ! nat (mid + 1)"
      by linarith
    then show ?thesis
    proof cases
      case eq
      then show ?thesis using mid q unfold by (intro "1.prems"(1) [of q]) simp_all
    next
      case lt
      show ?thesis
      proof (rule "1.IH"(1) [OF False half_def mid_def refl r(1) r(2) lt, of "q - 1"])
        fix m assume "find_range keys lower (mid - 2) c = Some (Some (lower + 2 * m))" "0 \<le> m" "m \<le> q - 1"
          "keys ! nat (lower + 2 * m) \<le> c" "c \<le> keys ! nat (lower + 2 * m + 1)"
        then show thesis using lt q unfold by (intro "1.prems"(1) [of m]) simp_all
      next
        assume a: "find_range keys lower (mid - 2) c = Some None"
          "\<And>i. 0 \<le> i \<Longrightarrow> i \<le> q - 1 \<Longrightarrow>
            c < keys ! nat (lower + 2 * i) \<or> keys ! nat (lower + 2 * i + 1) < c"
        show thesis
        proof (rule "1.prems"(2))
          show "find_range keys lower upper c = Some None" using a(1) lt unfold by simp
          fix i assume i: "0 \<le> i" "i \<le> n"
          show "c < keys ! nat (lower + 2 * i) \<or> keys ! nat (lower + 2 * i + 1) < c"
          proof (cases "i \<le> q - 1")
            case True
            then show ?thesis using a(2) i by blast
          next
            case False
            have "keys ! nat mid \<le> keys ! nat (lower + 2 * i)"
            proof (cases "i = q")
              case True then show ?thesis by (simp add: mid)
            next
              case neq: False
              show ?thesis by (rule le) (use False neq mid q i "1.prems"(6) in auto)
            qed
            then show ?thesis using lt by simp
          qed
        qed
      qed (use mid q "1.prems"(3-6) le in auto)
    next
      case gt
      have n': "-1 \<le> n - q - 1" using q by simp
      show ?thesis
      proof (rule "1.IH"(2) [OF False half_def mid_def refl r(1) r(2) gt, of "n - q - 1"])
        fix m assume "find_range keys (mid + 2) upper c = Some (Some (mid + 2 + 2 * m))" "0 \<le> m"
          "m \<le> n - q - 1" "keys ! nat (mid + 2 + 2 * m) \<le> c" "c \<le> keys ! nat (mid + 2 + 2 * m + 1)"
        then show thesis using gt q unfold
          by (intro "1.prems"(1) [of "q + 1 + m"]) (simp_all add: mid algebra_simps)
      next
        assume a: "find_range keys (mid + 2) upper c = Some None"
          "\<And>i. 0 \<le> i \<Longrightarrow> i \<le> n - q - 1 \<Longrightarrow>
            c < keys ! nat (mid + 2 + 2 * i) \<or> keys ! nat (mid + 2 + 2 * i + 1) < c"
        show thesis
        proof (rule "1.prems"(2))
          show "find_range keys lower upper c = Some None" using a(1) gt unfold by simp
          fix i assume i: "0 \<le> i" "i \<le> n"
          show "c < keys ! nat (lower + 2 * i) \<or> keys ! nat (lower + 2 * i + 1) < c"
          proof (cases "q + 1 \<le> i")
            case True
            then show ?thesis using a(2) [of "i - q - 1"] i by (simp add: mid algebra_simps)
          next
            case False
            have "keys ! nat (lower + 2 * i + 1) \<le> keys ! nat (mid + 1)"
            proof (cases "i = q")
              case True then show ?thesis by (simp add: mid)
            next
              case neq: False
              show ?thesis by (rule le) (use False neq mid q i "1.prems"(3,6) in auto)
            qed
            then show ?thesis using gt by simp
          qed
        qed
      qed (use mid q n' "1.prems"(3-6) le in \<open>auto simp: algebra_simps\<close>)
    qed
  qed
qed


subsection \<open>The arrays as rows\<close>

text \<open>
  A row of a state: its single keys, its ranges, and what each of them and, last, every other
  character leads to.
\<close>

type_synonym 'o t0_row = "int list \<times> (int \<times> int) list \<times> 'o list"

fun row_lookup :: "'o t0_row \<Rightarrow> int \<Rightarrow> 'o" where
  "row_lookup (k # sg, rg, os) c = (if c = k then hd os else row_lookup (sg, rg, tl os) c)"
| "row_lookup ([], (lo, hi) # rg, os) c =
     (if lo \<le> c \<and> c \<le> hi then hd os else row_lookup ([], rg, tl os) c)"
| "row_lookup ([], [], os) c = hd os"

fun flat_ranges :: "(int \<times> int) list \<Rightarrow> int list" where
  "flat_ranges [] = []"
| "flat_ranges ((lo, hi) # rg) = lo # hi # flat_ranges rg"

fun ranges_ascend :: "(int \<times> int) list \<Rightarrow> bool" where
  "ranges_ascend [] \<longleftrightarrow> True"
| "ranges_ascend [(lo, hi)] \<longleftrightarrow> lo \<le> hi"
| "ranges_ascend ((lo, hi) # (lo', hi') # rg) \<longleftrightarrow>
     lo \<le> hi \<and> hi < lo' \<and> ranges_ascend ((lo', hi') # rg)"

fun keys_ascend :: "int list \<Rightarrow> bool" where
  "keys_ascend [] \<longleftrightarrow> True"
| "keys_ascend [k] \<longleftrightarrow> True"
| "keys_ascend (k # k' # ks) \<longleftrightarrow> k < k' \<and> keys_ascend (k' # ks)"

lemma keys_ascend_sorted: "keys_ascend ks \<Longrightarrow> sorted_wrt (<) ks"
  by (induction ks rule: keys_ascend.induct) auto

lemma ranges_ascend_sorted:
  "ranges_ascend rg \<Longrightarrow> sorted (flat_ranges rg) \<and> sorted_wrt (\<lambda>r r'. snd r < fst r') rg \<and>
     (\<forall>r \<in> set rg. fst r \<le> snd r)"
proof (induction rg rule: ranges_ascend.induct)
  case (3 lo hi lo' hi' rg)
  then have IH: "sorted (lo' # hi' # flat_ranges rg)" "sorted_wrt (\<lambda>r r'. snd r < fst r') ((lo', hi') # rg)"
    "\<forall>r \<in> set ((lo', hi') # rg). fst r \<le> snd r" and lt: "lo \<le> hi" "hi < lo'" by simp_all
  have "hi < fst r" if "r \<in> set rg" for r
  proof -
    have "hi' < fst r" using IH(2) that by auto
    then show ?thesis using IH(3) lt by auto
  qed
  then show ?case using IH lt by auto
qed simp_all

lemma length_flat_ranges [simp]: "length (flat_ranges rg) = 2 * length rg"
  by (induction rg rule: flat_ranges.induct) simp_all

lemma flat_ranges_nth:
  "j < length rg \<Longrightarrow> flat_ranges rg ! (2 * j) = fst (rg ! j) \<and> flat_ranges rg ! (2 * j + 1) = snd (rg ! j)"
proof (induction rg arbitrary: j rule: flat_ranges.induct)
  case (2 lo hi rg)
  then show ?case by (cases j) simp_all
qed simp

lemma row_lookup_single:
  "i < length sg \<Longrightarrow> sg ! i = c \<Longrightarrow> sorted_wrt (<) sg \<Longrightarrow> length sg < length os \<Longrightarrow>
   row_lookup (sg, rg, os) c = os ! i"
proof (induction sg arbitrary: i os)
  case (Cons k sg)
  show ?case
  proof (cases i)
    case 0
    then show ?thesis using Cons.prems by (cases os) auto
  next
    case (Suc i')
    then have "k < c" using Cons.prems by (auto dest: nth_mem)
    then show ?thesis using Cons.IH [of i' "tl os"] Cons.prems Suc by (cases os) auto
  qed
qed simp

lemma row_lookup_no_single:
  "c \<notin> set sg \<Longrightarrow> row_lookup (sg, rg, os) c = row_lookup ([], rg, drop (length sg) os) c"
  by (induction sg arbitrary: os) (auto simp: drop_Suc)

lemma row_lookup_range:
  "j < length rg \<Longrightarrow> fst (rg ! j) \<le> c \<Longrightarrow> c \<le> snd (rg ! j) \<Longrightarrow>
   sorted_wrt (\<lambda>r r'. snd r < fst r') rg \<Longrightarrow> length rg < length os \<Longrightarrow>
   row_lookup ([], rg, os) c = os ! j"
proof (induction rg arbitrary: j os)
  case (Cons r rg)
  obtain lo hi where r: "r = (lo, hi)" by (cases r)
  show ?case
  proof (cases j)
    case 0
    then show ?thesis using Cons.prems r by (cases os) auto
  next
    case (Suc j')
    then have "(rg ! j') \<in> set rg" using Cons.prems(1) by simp
    then have "hi < fst (rg ! j')" using Cons.prems(4) r by auto
    then have "hi < c" using Cons.prems(2) Suc by simp
    then show ?thesis using Cons.IH [of j' "tl os"] Cons.prems Suc r by (cases os) auto
  qed
qed simp

lemma row_lookup_default:
  "(\<And>j. j < length rg \<Longrightarrow> c < fst (rg ! j) \<or> snd (rg ! j) < c) \<Longrightarrow> length rg < length os \<Longrightarrow>
   row_lookup ([], rg, os) c = os ! length rg"
proof (induction rg arbitrary: os)
  case Nil
  then show ?case by (cases os) simp_all
next
  case (Cons r rg)
  obtain lo hi where r: "r = (lo, hi)" by (cases r)
  have "c < lo \<or> hi < c" using Cons.prems(1) [of 0] r by simp
  then have "row_lookup ([], r # rg, os) c = row_lookup ([], rg, tl os) c" by (auto simp: r)
  also have "\<dots> = tl os ! length rg"
  proof (rule Cons.IH)
    fix j assume "j < length rg"
    then show "c < fst (rg ! j) \<or> snd (rg ! j) < c" using Cons.prems(1) [of "Suc j"] by simp
  qed (use Cons.prems(2) in simp)
  finally show ?case using Cons.prems(2) by (cases os) simp_all
qed

text \<open>What a place in \<open>indicies\<close> stands for.\<close>

definition t0_trans :: "rgl_tables \<Rightarrow> int \<Rightarrow> (int \<times> int list) option" where
  "t0_trans T tr = do {
     targ \<leftarrow> rd (t_trans_targs T) tr;
     a \<leftarrow> rd (t_trans_actions T) tr;
     acts \<leftarrow> t0_acts_at T a;
     Some (targ, acts)
   }"

lemma t0_step_trans:
  "t0_step T cs c = do { place \<leftarrow> t0_match T cs c; trans \<leftarrow> rd (t_indicies T) place; t0_trans T trans }"
  by (simp add: t0_step_def t0_trans_def)

text \<open>The arrays say the row \<open>r\<close> for state \<open>cs\<close>.\<close>

definition row_at :: "rgl_tables \<Rightarrow> int \<Rightarrow> (int \<times> int list) t0_row \<Rightarrow> bool" where
  "row_at T cs r \<longleftrightarrow>
     (case r of (sg, rg, os) \<Rightarrow>
        (\<exists>ko io keys inds.
           rd (t_key_offsets T) cs = Some (int ko) \<and> rd (t_index_offsets T) cs = Some (int io) \<and>
           rd (t_single_lengths T) cs = Some (int (length sg)) \<and>
           rd (t_range_lengths T) cs = Some (int (length rg)) \<and>
           drop ko (t_trans_keys T) = sg @ flat_ranges rg @ keys \<and>
           length os = length sg + length rg + 1 \<and>
           (\<exists>ts. drop io (t_indicies T) = ts @ inds \<and> map (t0_trans T) ts = map Some os) \<and>
           keys_ascend sg \<and> ranges_ascend rg))"

lemma drop_append_nth:
  assumes "drop n xs = ys @ zs" and "i < length ys"
  shows "n + i < length xs \<and> xs ! (n + i) = ys ! i"
proof -
  have "length xs - n = length ys + length zs" using assms(1) by (metis length_append length_drop)
  then have l: "n + i < length xs" using assms(2) by simp
  have "xs ! (n + i) = drop n xs ! i" using l by simp
  then show ?thesis using l assms by (simp add: nth_append)
qed

lemma map_Some_nth: "map f is = map Some os \<Longrightarrow> i < length os \<Longrightarrow> f (is ! i) = Some (os ! i)"
  by (metis length_map nth_map)


lemma int_interval_nat:
  assumes "int k \<le> i" and "i \<le> int k + int n - 1"
  obtains a where "i = int (k + a)" "a < n"
proof -
  from assms(1) obtain a where a: "i = int (k + a)" by (metis zle_iff_zadd of_nat_add)
  with assms(2) show thesis by (intro that [of a]) simp_all
qed

lemma find_single_list:
  assumes keys: "drop k K = sg @ ks" and asc: "keys_ascend sg" and "sg \<noteq> []"
  shows "(\<exists>m < length sg. sg ! m = c \<and>
      find_single K (int k) (int k + int (length sg) - 1) c = Some (Some (int (k + m)))) \<or>
    (c \<notin> set sg \<and> find_single K (int k) (int k + int (length sg) - 1) c = Some None)"
proof -
  have K: "k + i < length K \<and> K ! (k + i) = sg ! i" if "i < length sg" for i
    by (rule drop_append_nth [OF keys that])
  show ?thesis
  proof (rule find_single_spec [of "int k" "int k + int (length sg) - 1" K c])
    show "int k + int (length sg) - 1 < int (length K)"
      using K [of "length sg - 1"] \<open>sg \<noteq> []\<close> by (cases sg) auto
  next
    fix i j :: int
    assume ij: "int k \<le> i" "i < j" "j \<le> int k + int (length sg) - 1"
    obtain a where a: "i = int (k + a)" "a < length sg"
      by (rule int_interval_nat [of k i "length sg"]) (use ij in auto)
    obtain b where b: "j = int (k + b)" "b < length sg"
      by (rule int_interval_nat [of k j "length sg"]) (use ij in auto)
    have "a < b" using ij a b by simp
    then have "sg ! a < sg ! b" using keys_ascend_sorted [OF asc] b by (simp add: sorted_wrt_iff_nth_less)
    then show "K ! nat i < K ! nat j" using K [OF a(2)] K [OF b(2)] a(1) b(1) by (simp del: of_nat_add)
  next
    fix m
    assume m: "find_single K (int k) (int k + int (length sg) - 1) c = Some (Some m)"
      "int k \<le> m" "m \<le> int k + int (length sg) - 1" "K ! nat m = c"
    obtain a where a: "m = int (k + a)" "a < length sg" by (rule int_interval_nat [OF m(2,3)])
    then have "sg ! a = c" using m(4) K [OF a(2)] by (simp del: of_nat_add)
    then show ?thesis using m(1) a by auto
  next
    assume n: "find_single K (int k) (int k + int (length sg) - 1) c = Some None"
      "\<And>i. int k \<le> i \<Longrightarrow> i \<le> int k + int (length sg) - 1 \<Longrightarrow> K ! nat i \<noteq> c"
    have "sg ! i \<noteq> c" if "i < length sg" for i
      using n(2) [of "int k + int i"] K [OF that] that by (auto simp: nat_add_distrib)
    then show ?thesis using n(1) by (auto simp: in_set_conv_nth)
  qed simp
qed

lemma find_range_list:
  assumes keys: "drop k K = flat_ranges rg @ ks" and asc: "ranges_ascend rg" and "rg \<noteq> []"
  shows "(\<exists>m < length rg. fst (rg ! m) \<le> c \<and> c \<le> snd (rg ! m) \<and>
      find_range K (int k) (int k + int (length rg) * 2 - 2) c = Some (Some (int k + 2 * int m))) \<or>
    ((\<forall>m < length rg. c < fst (rg ! m) \<or> snd (rg ! m) < c) \<and>
     find_range K (int k) (int k + int (length rg) * 2 - 2) c = Some None)"
    (is "?F \<or> ?A")
proof -
  note flat = ranges_ascend_sorted [OF asc]
  have K: "k + i < length K \<and> K ! (k + i) = flat_ranges rg ! i" if "i < 2 * length rg" for i
    using drop_append_nth [OF keys] that by simp
  have at: "K ! nat (int k + 2 * int m) = fst (rg ! m) \<and> K ! nat (int k + 2 * int m + 1) = snd (rg ! m)"
    if "m < length rg" for m
  proof -
    have e: "nat (int k + 2 * int m) = k + 2 * m" "nat (int k + 2 * int m + 1) = k + (2 * m + 1)" by simp_all
    show ?thesis unfolding e using K [of "2 * m"] K [of "2 * m + 1"] flat_ranges_nth [OF that] that by simp
  qed
  show ?thesis
  proof (rule find_range_spec [of "int k" "int (length rg) - 1" K "int k + int (length rg) * 2 - 2" c])
    show "int k + 2 * (int (length rg) - 1) + 1 < int (length K)"
      using K [of "2 * length rg - 1"] \<open>rg \<noteq> []\<close> by (cases rg) auto
  next
    fix i j :: int
    assume ij: "int k \<le> i" "i < j" "j \<le> int k + int (length rg) * 2 - 2 + 1"
    obtain a where a: "i = int (k + a)" "a < 2 * length rg"
      by (rule int_interval_nat [of k i "2 * length rg"]) (use ij in auto)
    obtain b where b: "j = int (k + b)" "b < 2 * length rg"
      by (rule int_interval_nat [of k j "2 * length rg"]) (use ij in auto)
    have "a < b" using ij a b by simp
    then have "flat_ranges rg ! a \<le> flat_ranges rg ! b"
      using flat b by (simp add: sorted_iff_nth_mono_less)
    then show "K ! nat i \<le> K ! nat j" using K [OF a(2)] K [OF b(2)] a(1) b(1) by (simp del: of_nat_add)
  next
    fix m
    assume m: "find_range K (int k) (int k + int (length rg) * 2 - 2) c = Some (Some (int k + 2 * m))"
      "0 \<le> m" "m \<le> int (length rg) - 1"
      "K ! nat (int k + 2 * m) \<le> c" "c \<le> K ! nat (int k + 2 * m + 1)"
    obtain a where a: "m = int a" using m(2) zero_le_imp_eq_int by blast
    then have "a < length rg" using m(3) by simp
    then have ?F using m(1,4,5) at [of a] by (intro exI [of _ a]) (simp add: a)
    then show ?thesis ..
  next
    assume n: "find_range K (int k) (int k + int (length rg) * 2 - 2) c = Some None"
      "\<And>i. 0 \<le> i \<Longrightarrow> i \<le> int (length rg) - 1 \<Longrightarrow>
        c < K ! nat (int k + 2 * i) \<or> K ! nat (int k + 2 * i + 1) < c"
    have ?A
    proof (intro conjI allI impI)
      fix m assume "m < length rg"
      then show "c < fst (rg ! m) \<or> snd (rg ! m) < c" using n(2) [of "int m"] at [of m] by auto
    qed (rule n(1))
    then show ?thesis ..
  qed (use \<open>rg \<noteq> []\<close> in \<open>auto simp: Suc_le_eq\<close>)
qed

theorem t0_step_row:
  assumes "row_at T cs r"
  shows "t0_step T cs c = Some (row_lookup r c)"
proof -
  obtain sg rg os where r: "r = (sg, rg, os)" by (cases r) auto
  obtain ko io keys inds ts where
      ko: "rd (t_key_offsets T) cs = Some (int ko)" and io: "rd (t_index_offsets T) cs = Some (int io)"
    and sl: "rd (t_single_lengths T) cs = Some (int (length sg))"
    and rl: "rd (t_range_lengths T) cs = Some (int (length rg))"
    and keys: "drop ko (t_trans_keys T) = sg @ flat_ranges rg @ keys"
    and os: "length os = length sg + length rg + 1"
    and ts: "drop io (t_indicies T) = ts @ inds" "map (t0_trans T) ts = map Some os"
    and sg: "keys_ascend sg" and rg: "ranges_ascend rg"
    using assms unfolding row_at_def r by auto
  note sorted_sg = keys_ascend_sorted [OF sg]
  note sorted_rg = ranges_ascend_sorted [OF rg]
  let ?K = "t_trans_keys T"
  have keys': "drop (ko + length sg) ?K = flat_ranges rg @ keys"
    using keys by (metis append_eq_conv_conj drop_drop add.commute)
  have len_ts: "length ts = length os" by (metis ts(2) length_map)
  have out: "t0_step T cs c = Some (os ! i)" if "t0_match T cs c = Some (int (io + i))" "i < length os" for i
  proof -
    have "rd (t_indicies T) (int (io + i)) = Some (ts ! i)"
      using drop_append_nth [OF ts(1)] that(2) len_ts by (simp add: rd_int del: of_nat_add)
    then show ?thesis using map_Some_nth [OF ts(2) that(2)] that(1) by (simp add: t0_step_trans)
  qed
  have ranges: "\<exists>i. t0_match T cs c = Some (int (io + i)) \<and> i < length os \<and> row_lookup r c = os ! i"
    if c: "c \<notin> set sg"
      "0 < length sg \<longrightarrow> find_single ?K (int ko) (int ko + int (length sg) - 1) c = Some None"
  proof (cases "rg = []")
    case True
    have "t0_match T cs c = Some (int (io + length sg))"
      using c(2) by (cases sg) (simp_all add: t0_match_def ko io sl rl True)
    moreover have "row_lookup r c = os ! length sg"
      unfolding r row_lookup_no_single [OF c(1)] using True os by (simp add: hd_drop_conv_nth)
    ultimately show ?thesis using os by (intro exI [of _ "length sg"]) simp
  next
    case False
    from find_range_list [OF keys' rg False, of c] show ?thesis
    proof (elim disjE exE conjE)
      fix m assume m: "m < length rg" "fst (rg ! m) \<le> c" "c \<le> snd (rg ! m)"
        "find_range ?K (int (ko + length sg)) (int (ko + length sg) + int (length rg) * 2 - 2) c =
         Some (Some (int (ko + length sg) + 2 * int m))"
      have "t0_match T cs c = Some (int (io + (length sg + m)))"
        using c(2) m(4) False
        by (cases "0 < length sg") (simp_all add: t0_match_def ko io sl rl Let_def)
      moreover have "row_lookup r c = drop (length sg) os ! m"
        unfolding r row_lookup_no_single [OF c(1)]
        by (rule row_lookup_range) (use m sorted_rg os in auto)
      ultimately show ?thesis using os m(1) by (intro exI [of _ "length sg + m"]) simp
    next
      assume m: "\<forall>m < length rg. c < fst (rg ! m) \<or> snd (rg ! m) < c"
        "find_range ?K (int (ko + length sg)) (int (ko + length sg) + int (length rg) * 2 - 2) c = Some None"
      have "t0_match T cs c = Some (int (io + (length sg + length rg)))"
        using c(2) m(2) False
        by (cases "0 < length sg") (simp_all add: t0_match_def ko io sl rl Let_def)
      moreover have "row_lookup r c = drop (length sg) os ! length rg"
        unfolding r row_lookup_no_single [OF c(1)]
        by (rule row_lookup_default) (use m os in auto)
      ultimately show ?thesis using os by (intro exI [of _ "length sg + length rg"]) simp
    qed
  qed
  show ?thesis
  proof (cases "sg = []")
    case True
    then show ?thesis using ranges out by auto
  next
    case False
    from find_single_list [OF keys sg False, of c] show ?thesis
    proof (elim disjE exE conjE)
      fix m assume m: "m < length sg" "sg ! m = c"
        "find_single ?K (int ko) (int ko + int (length sg) - 1) c = Some (Some (int (ko + m)))"
      have "t0_match T cs c = Some (int (io + m))"
        using m False by (simp add: t0_match_def ko io sl)
      moreover have "row_lookup r c = os ! m"
        unfolding r using m sorted_sg os by (intro row_lookup_single) simp_all
      ultimately show ?thesis using out [of m] m os by simp
    next
      assume "c \<notin> set sg" "find_single ?K (int ko) (int ko + int (length sg) - 1) c = Some None"
      then show ?thesis using ranges out by auto
    qed
  qed
qed


subsection \<open>Checking the rows in one pass\<close>

text \<open>Reading a list at an integer place, with code that recurses on the list.\<close>

fun ith :: "'a list \<Rightarrow> int \<Rightarrow> 'a option" where
  "ith [] i = None"
| "ith (x # xs) i = (if i = 0 then Some x else ith xs (i - 1))"

lemma ith_neg: "i < 0 \<Longrightarrow> ith xs i = None"
  by (induction xs arbitrary: i) auto

lemma ith_eq: "ith xs i = (if 0 \<le> i \<and> i < int (length xs) then Some (xs ! nat i) else None)"
proof (induction xs arbitrary: i)
  case (Cons x xs)
  consider "i < 0" | "i = 0" | "0 < i" by linarith
  then show ?case
  proof cases
    case 3
    then have "nat i = Suc (nat (i - 1))" by simp
    with 3 Cons.IH [of "i - 1"] show ?thesis by auto
  qed (simp_all add: ith_neg)
qed simp

lemma rd_code [code]: "rd xs i = ith xs i"
  by (simp add: rd_def ith_eq)

lemma rd_Nil [simp]: "rd [] i = None"
  by (simp add: rd_code)

lemma rd_Cons [simp]: "rd (x # xs) i = (if i = 0 then Some x else rd xs (i - 1))"
  by (simp add: rd_code)

lemma rd_append: "rd (xs @ ys) i = (if i < int (length xs) then rd xs i else rd ys (i - int (length xs)))"
  by (induction xs arbitrary: i) (auto simp: rd_code ith_neg algebra_simps)

fun strip :: "'a list \<Rightarrow> 'a list \<Rightarrow> 'a list option" where
  "strip [] ys = Some ys"
| "strip (x # xs) [] = None"
| "strip (x # xs) (y # ys) = (if x = y then strip xs ys else None)"

lemma strip_Some: "strip xs ys = Some zs \<Longrightarrow> ys = xs @ zs"
  by (induction xs ys rule: strip.induct) (auto split: if_splits)

fun strip_trans :: "(int \<Rightarrow> 'o option) \<Rightarrow> 'o list \<Rightarrow> int list \<Rightarrow> int list option" where
  "strip_trans tr [] ts = Some ts"
| "strip_trans tr (x # os) [] = None"
| "strip_trans tr (x # os) (t # ts) = (if tr t = Some x then strip_trans tr os ts else None)"

lemma strip_trans_Some:
  "strip_trans tr os ts = Some zs \<Longrightarrow> \<exists>ys. ts = ys @ zs \<and> map tr ys = map Some os"
proof (induction tr os ts rule: strip_trans.induct)
  case (3 tr x os t ts)
  then obtain ys where "ts = ys @ zs" "map tr ys = map Some os" by (auto split: if_splits)
  then show ?case using 3 by (intro exI [of _ "t # ys"]) (auto split: if_splits)
qed auto

text \<open>
  The rows from one state on, against what is left of the arrays: \<open>kp\<close> and \<open>ip\<close> are the offsets
  reached in the keys and in \<open>indicies\<close>.
\<close>

fun rows_check ::
  "(int \<Rightarrow> 'o option) \<Rightarrow> int \<Rightarrow> int \<Rightarrow> int list \<Rightarrow> int list \<Rightarrow> int list \<Rightarrow> int list \<Rightarrow> int list \<Rightarrow> int list \<Rightarrow>
   'o t0_row list \<Rightarrow> bool" where
  "rows_check tr kp ip (ko # kos) (io # ios) (sl # sls) (rl # rls) keys inds ((sg, rg, os) # rows) \<longleftrightarrow>
     ko = kp \<and> io = ip \<and> sl = int (length sg) \<and> rl = int (length rg) \<and>
     int (length os) = sl + rl + 1 \<and> keys_ascend sg \<and> ranges_ascend rg \<and>
     (case strip sg keys of
        None \<Rightarrow> False
      | Some keys \<Rightarrow>
          (case strip (flat_ranges rg) keys of
             None \<Rightarrow> False
           | Some keys \<Rightarrow>
               (case strip_trans tr os inds of
                  None \<Rightarrow> False
                | Some inds \<Rightarrow>
                    rows_check tr (kp + sl + 2 * rl) (ip + sl + rl + 1) kos ios sls rls keys inds rows)))"
| "rows_check tr kp ip kos ios sls rls keys inds [] \<longleftrightarrow> True"
| "rows_check tr kp ip kos ios sls rls keys inds rows \<longleftrightarrow> False"

text \<open>
  What such a check of numbers written out is computed with: rewriting that never looks again at
  the rest of the arrays.
\<close>

named_theorems row_arith

lemma strip_same: "strip (x # xs) (x # ys) = strip xs ys"
  by simp

lemma strip_trans_same: "tr t = Some x \<Longrightarrow> strip_trans tr (x # os) (t # ts) = strip_trans tr os ts"
  by simp

lemma int_length: "int (length []) = 0" "int (length (x # xs)) = int (length xs) + 1"
  by simp_all

declare simp_thms [row_arith] arith_simps [row_arith] rel_simps [row_arith]
  le_numeral_extra [row_arith] less_numeral_extra [row_arith] add_0 [row_arith] add_0_right [row_arith]
  mult_zero_right [row_arith] mult_1_right [row_arith] add_numeral_special [row_arith]
  numeral_One [row_arith] zero_le_numeral [row_arith] zero_le_one [row_arith] one_le_numeral [row_arith]
  one_add_one [row_arith]

lemmas rows_simps = rows_check.simps(1,2) strip.simps(1) strip_same strip_trans.simps(1) strip_trans_same
  keys_ascend.simps ranges_ascend.simps flat_ranges.simps option.case int_length list.sel row_arith

lemma rd_drop: "drop n xs = y # ys \<Longrightarrow> rd xs (int n) = Some y \<and> drop (Suc n) xs = ys"
  by (metis drop_Suc drop_all list.distinct(1) list.sel(3) not_le nth_via_drop rd_int tl_drop)

lemma rows_check_sound:
  assumes "rows_check tr kp ip kos ios sls rls keys inds rows"
    and "\<And>i x. tr i = Some x \<Longrightarrow> t0_trans T i = Some x"
    and "kp = int k" "ip = int j" "drop n (t_key_offsets T) = kos" "drop n (t_index_offsets T) = ios"
    "drop n (t_single_lengths T) = sls" "drop n (t_range_lengths T) = rls"
    "drop k (t_trans_keys T) = keys" "drop j (t_indicies T) = inds"
  shows "i < length rows \<Longrightarrow> row_at T (int (n + i)) (rows ! i)"
  using assms
proof (induction tr kp ip kos ios sls rls keys inds rows arbitrary: n k j i rule: rows_check.induct)
  case (1 tr kp ip ko kos io ios sl sls rl rls keys inds sg rg os rows)
  note ch = "1.prems"(2)
  obtain keys1 where k1: "strip sg keys = Some keys1" using ch by (auto split: option.splits)
  obtain keys2 where k2: "strip (flat_ranges rg) keys1 = Some keys2" using ch k1 by (auto split: option.splits)
  obtain inds2 where i2: "strip_trans tr os inds = Some inds2"
    using ch k1 k2 by (auto split: option.splits)
  have ch': "ko = kp" "io = ip" "sl = int (length sg)" "rl = int (length rg)"
    "int (length os) = sl + rl + 1" "keys_ascend sg" "ranges_ascend rg"
    "rows_check tr (kp + sl + 2 * rl) (ip + sl + rl + 1) kos ios sls rls keys2 inds2 rows"
    using ch k1 k2 i2 by auto
  have keys: "keys = sg @ flat_ranges rg @ keys2" using strip_Some [OF k1] strip_Some [OF k2] by simp
  obtain ts where ts: "inds = ts @ inds2" "map tr ts = map Some os"
    using strip_trans_Some [OF i2] by auto
  have ts': "map (t0_trans T) ts = map Some os"
  proof (rule nth_equalityI)
    show "length (map (t0_trans T) ts) = length (map Some os)" using ts(2) by (metis length_map)
    fix i assume "i < length (map (t0_trans T) ts)"
    then show "map (t0_trans T) ts ! i = map Some os ! i"
      using "1.prems"(3) map_Some_nth [OF ts(2)] ts(2) by (metis length_map nth_map)
  qed
  note heads = rd_drop [OF "1.prems"(6)] rd_drop [OF "1.prems"(7)] rd_drop [OF "1.prems"(8)]
    rd_drop [OF "1.prems"(9)]
  have row: "row_at T (int n) (sg, rg, os)"
    unfolding row_at_def using heads ch' keys ts ts' "1.prems"(4,5,10,11) by auto
  show ?case
  proof (cases i)
    case 0
    then show ?thesis using row by simp
  next
    case (Suc i')
    have "row_at T (int (Suc n + i')) (rows ! i')"
    proof (rule "1.IH" [OF k1 k2 i2, where k = "k + length sg + 2 * length rg" and j = "j + length os"])
      have len: "length ts = length os" by (metis ts(2) length_map)
      show "drop (k + length sg + 2 * length rg) (t_trans_keys T) = keys2"
        using "1.prems"(10) keys
        by (metis (no_types, lifting) add.assoc append_assoc append_eq_conv_conj drop_drop
            length_append length_flat_ranges add.commute)
      show "drop (j + length os) (t_indicies T) = inds2"
        using "1.prems"(11) ts(1) len by (metis append_eq_conv_conj drop_drop add.commute)
    qed (use ch' heads "1.prems"(1,3-5) Suc in auto)
    then show ?thesis using Suc by simp
  qed
qed simp_all

text \<open>The same check on the part of the arrays that belongs to the rows.\<close>

lemma strip_append: "strip xs ys = Some zs \<Longrightarrow> strip xs (ys @ rest) = Some (zs @ rest)"
  by (induction xs ys rule: strip.induct) (auto split: if_splits)

lemma strip_trans_append:
  "strip_trans tr os ts = Some zs \<Longrightarrow> strip_trans tr os (ts @ rest) = Some (zs @ rest)"
  by (induction tr os ts rule: strip_trans.induct) (auto split: if_splits)

lemma rows_check_append:
  "rows_check tr kp ip kos ios sls rls keys inds rows \<Longrightarrow>
   rows_check tr kp ip (kos @ kos') (ios @ ios') (sls @ sls') (rls @ rls') (keys @ keys') (inds @ inds') rows"
proof (induction tr kp ip kos ios sls rls keys inds rows rule: rows_check.induct)
  case (1 tr kp ip ko kos io ios sl sls rl rls keys inds sg rg os rows)
  note ch = "1.prems"
  obtain keys1 where k1: "strip sg keys = Some keys1" using ch by (auto split: option.splits)
  obtain keys2 where k2: "strip (flat_ranges rg) keys1 = Some keys2" using ch k1 by (auto split: option.splits)
  obtain inds2 where i2: "strip_trans tr os inds = Some inds2"
    using ch k1 k2 by (auto split: option.splits)
  have "rows_check tr (kp + sl + 2 * rl) (ip + sl + rl + 1) kos ios sls rls keys2 inds2 rows"
    using ch k1 k2 i2 by auto
  from "1.IH" [OF k1 k2 i2 this] show ?case
    using ch k1 k2 i2 strip_append [OF k1] strip_append [OF k2] strip_trans_append [OF i2]
    by simp
qed simp_all

lemma rows_check_block:
  assumes "rows_check (t0_trans T) (int k) (int j) kos ios sls rls keys inds rows"
    and "drop n (t_key_offsets T) = kos @ kos'" "drop n (t_index_offsets T) = ios @ ios'"
    "drop n (t_single_lengths T) = sls @ sls'" "drop n (t_range_lengths T) = rls @ rls'"
    "drop k (t_trans_keys T) = keys @ keys'" "drop j (t_indicies T) = inds @ inds'"
  shows "i < length rows \<Longrightarrow> row_at T (int (n + i)) (rows ! i)"
  by (rule rows_check_sound [OF rows_check_append [OF assms(1)] _ refl refl assms(2-7)]) simp_all

text \<open>Rows for consecutive states.\<close>

definition rows_from :: "rgl_tables \<Rightarrow> nat \<Rightarrow> (int \<times> int list) t0_row list \<Rightarrow> bool" where
  "rows_from T n rows \<longleftrightarrow> (\<forall>i < length rows. row_at T (int (n + i)) (rows ! i))"

lemma rows_check_from:
  assumes "rows_check (t0_trans T) kp ip kos ios sls rls keys inds rows" and "0 \<le> kp" and "0 \<le> ip"
    and "drop n (t_key_offsets T) = kos @ kos'" "drop n (t_index_offsets T) = ios @ ios'"
    "drop n (t_single_lengths T) = sls @ sls'" "drop n (t_range_lengths T) = rls @ rls'"
    "drop (nat kp) (t_trans_keys T) = keys @ keys'" "drop (nat ip) (t_indicies T) = inds @ inds'"
  shows "rows_from T n rows"
  unfolding rows_from_def
  using rows_check_block [OF _ assms(4-9)] assms(1-3) by simp

lemma rows_from_append:
  "rows_from T n xs \<Longrightarrow> rows_from T (n + length xs) ys \<Longrightarrow> rows_from T n (xs @ ys)"
proof -
  assume xs: "rows_from T n xs" and ys: "rows_from T (n + length xs) ys"
  have "row_at T (int (n + i)) ((xs @ ys) ! i)" if "i < length (xs @ ys)" for i
  proof (cases "i < length xs")
    case True
    then show ?thesis using xs by (simp add: rows_from_def nth_append)
  next
    case False
    then have "i - length xs < length ys" using that by simp
    then have "row_at T (int (n + length xs + (i - length xs))) (ys ! (i - length xs))"
      using ys unfolding rows_from_def by blast
    moreover have "n + length xs + (i - length xs) = n + i" using False by simp
    ultimately show ?thesis using False by (simp only: nth_append if_False)
  qed
  then show "rows_from T n (xs @ ys)" by (simp add: rows_from_def)
qed

lemma rows_from_step:
  "rows_from T 1 rows \<Longrightarrow> 1 \<le> cs \<Longrightarrow> cs \<le> int (length rows) \<Longrightarrow>
   t0_step T cs c = Some (row_lookup (rows ! nat (cs - 1)) c)"
proof -
  assume r: "rows_from T 1 rows" and cs: "1 \<le> cs" "cs \<le> int (length rows)"
  have "nat (cs - 1) < length rows" using cs by linarith
  then have "row_at T (int (1 + nat (cs - 1))) (rows ! nat (cs - 1))" using r unfolding rows_from_def by blast
  moreover have "int (1 + nat (cs - 1)) = cs" using cs by simp
  ultimately show "t0_step T cs c = Some (row_lookup (rows ! nat (cs - 1)) c)" by (metis t0_step_row)
qed

subsection \<open>A claim about every transition\<close>

text \<open>
  The cells of a row: an interval of characters and what they lead to.  The characters no key
  matches are covered by the whole range of \<open>char\<close>.
\<close>

fun row_cells :: "'o t0_row \<Rightarrow> (int \<times> int \<times> 'o) list" where
  "row_cells (k # sg, rg, os) = (k, k, hd os) # row_cells (sg, rg, tl os)"
| "row_cells ([], (lo, hi) # rg, os) = (lo, hi, hd os) # row_cells ([], rg, tl os)"
| "row_cells ([], [], os) = [(-128, 127, hd os)]"

lemma row_lookup_cell:
  "-128 \<le> c \<Longrightarrow> c \<le> 127 \<Longrightarrow>
   \<exists>lo hi. (lo, hi, row_lookup r c) \<in> set (row_cells r) \<and> lo \<le> c \<and> c \<le> hi"
proof (induction r rule: row_cells.induct)
  case (1 k sg rg os)
  then show ?case by (cases "c = k") auto
next
  case (2 lo hi rg os)
  then show ?case by (cases "lo \<le> c \<and> c \<le> hi") auto
qed auto

text \<open>\<open>P\<close> gets the state, the interval, the next state and the actions.\<close>

fun cells_ok :: "(int \<Rightarrow> int \<Rightarrow> int \<Rightarrow> int \<Rightarrow> int list \<Rightarrow> bool) \<Rightarrow> int \<Rightarrow> (int \<times> int list) t0_row list \<Rightarrow> bool"
  where
  "cells_ok P n [] \<longleftrightarrow> True"
| "cells_ok P n (r # rows) \<longleftrightarrow>
     list_all (\<lambda>(lo, hi, cs, as). P n lo hi cs as) (row_cells r) \<and> cells_ok P (n + 1) rows"

lemma cells_ok_append:
  "cells_ok P n xs \<Longrightarrow> cells_ok P (n + int (length xs)) ys \<Longrightarrow> cells_ok P n (xs @ ys)"
  by (induction xs arbitrary: n) (auto simp: algebra_simps)

lemma cells_ok_nth:
  "cells_ok P n rows \<Longrightarrow> i < length rows \<Longrightarrow> (lo, hi, cs, as) \<in> set (row_cells (rows ! i)) \<Longrightarrow>
   P (n + int i) lo hi cs as"
proof (induction rows arbitrary: n i)
  case (Cons r rows)
  show ?case
  proof (cases i)
    case 0
    then show ?thesis using Cons.prems by (fastforce simp: list_all_iff)
  next
    case (Suc i')
    then show ?thesis using Cons.IH [of "n + 1" i'] Cons.prems by (simp add: algebra_simps)
  qed
qed simp

text \<open>So a checked claim holds for every step the machine takes.\<close>

theorem cells_ok_step:
  assumes "rows_from T 1 rows" and "cells_ok P 1 rows" and "1 \<le> cs" and "cs \<le> int (length rows)"
  obtains lo hi cs' as where "t0_step T cs (schar c) = Some (cs', as)" "P cs lo hi cs' as"
    "lo \<le> schar c" "schar c \<le> hi"
proof -
  let ?r = "rows ! nat (cs - 1)"
  obtain cs' as where o: "row_lookup ?r (schar c) = (cs', as)" by fastforce
  obtain lo hi where cell: "(lo, hi, cs', as) \<in> set (row_cells ?r)" "lo \<le> schar c" "schar c \<le> hi"
    using row_lookup_cell [of "schar c" ?r] o by auto
  have "P (1 + int (nat (cs - 1))) lo hi cs' as"
    by (rule cells_ok_nth [OF assms(2) _ cell(1)]) (use assms(3,4) in linarith)
  then have "P cs lo hi cs' as" using assms(3) by simp
  moreover have "t0_step T cs (schar c) = Some (cs', as)"
    using rows_from_step [OF assms(1,3,4)] o by simp
  ultimately show thesis using that cell by blast
qed

end
