(* ===== verification/Ws_Http_Rows.thy ===== *)
theory Ws_Http_Rows
  imports Ws_Http_Tables
begin

text \<open>
  The arrays of ext/websocket_http_parser/ws_http_parser.c read as rows: what each transition is
  (the next state and the actions), and for each state from 1 on its keys and the transitions
  they lead to, thirty states at a time.
\<close>

subsection \<open>The actions and the transitions\<close>

lemma ws_acts:
  "t0_acts_at ws_tables 0 = Some []"
  "t0_acts_at ws_tables 1 = Some [0]"
  "t0_acts_at ws_tables 3 = Some [2]"
  "t0_acts_at ws_tables 5 = Some [3]"
  "t0_acts_at ws_tables 7 = Some [4]"
  "t0_acts_at ws_tables 9 = Some [5]"
  "t0_acts_at ws_tables 11 = Some [12]"
  "t0_acts_at ws_tables 13 = Some [13]"
  "t0_acts_at ws_tables 15 = Some [14]"
  "t0_acts_at ws_tables 17 = Some [15]"
  "t0_acts_at ws_tables 19 = Some [17]"
  "t0_acts_at ws_tables 21 = Some [18]"
  "t0_acts_at ws_tables 23 = Some [21]"
  "t0_acts_at ws_tables 25 = Some [26]"
  "t0_acts_at ws_tables 27 = Some [27]"
  "t0_acts_at ws_tables 29 = Some [3, 0]"
  "t0_acts_at ws_tables 32 = Some [3, 4]"
  "t0_acts_at ws_tables 35 = Some [5, 1]"
  "t0_acts_at ws_tables 38 = Some [9, 10]"
  "t0_acts_at ws_tables 41 = Some [12, 11]"
  "t0_acts_at ws_tables 44 = Some [13, 14]"
  "t0_acts_at ws_tables 47 = Some [14, 11]"
  "t0_acts_at ws_tables 50 = Some [16, 11]"
  "t0_acts_at ws_tables 53 = Some [18, 4]"
  "t0_acts_at ws_tables 56 = Some [19, 4]"
  "t0_acts_at ws_tables 59 = Some [20, 4]"
  "t0_acts_at ws_tables 62 = Some [21, 4]"
  "t0_acts_at ws_tables 65 = Some [22, 4]"
  "t0_acts_at ws_tables 68 = Some [23, 4]"
  "t0_acts_at ws_tables 71 = Some [24, 4]"
  "t0_acts_at ws_tables 74 = Some [25, 4]"
  "t0_acts_at ws_tables 77 = Some [26, 4]"
  "t0_acts_at ws_tables 80 = Some [6, 9, 10]"
  "t0_acts_at ws_tables 84 = Some [7, 9, 10]"
  "t0_acts_at ws_tables 88 = Some [8, 9, 10]"
  "t0_acts_at ws_tables 92 = Some [13, 14, 11]"
  "t0_acts_at ws_tables 96 = Some [15, 16, 11]"
  by (simp_all add: t0_acts_at_def ws_tables_def ws_actions_def)

lemma ws_targs_rd:
  "rd (t_trans_targs ws_tables) i = rd ws_trans_targs i"
  "rd (t_trans_actions ws_tables) i = rd ws_trans_actions i"
  by (simp_all add: ws_tables_def)

lemma ws_tacts_rd:
  "rd ws_trans_targs i =
     (if i < 64 then rd ws_trans_targs_1 i
      else if i < 128 then rd ws_trans_targs_2 (i - 64)
      else if i < 192 then rd ws_trans_targs_3 (i - 128)
      else if i < 256 then rd ws_trans_targs_4 (i - 192)
      else if i < 320 then rd ws_trans_targs_5 (i - 256)
      else if i < 384 then rd ws_trans_targs_6 (i - 320)
      else if i < 448 then rd ws_trans_targs_7 (i - 384)
      else rd ws_trans_targs_8 (i - 448))"
  "rd ws_trans_actions i =
     (if i < 64 then rd ws_trans_actions_1 i
      else if i < 128 then rd ws_trans_actions_2 (i - 64)
      else if i < 192 then rd ws_trans_actions_3 (i - 128)
      else if i < 256 then rd ws_trans_actions_4 (i - 192)
      else if i < 320 then rd ws_trans_actions_5 (i - 256)
      else if i < 384 then rd ws_trans_actions_6 (i - 320)
      else if i < 448 then rd ws_trans_actions_7 (i - 384)
      else rd ws_trans_actions_8 (i - 448))"
  by (simp_all add: ws_trans_targs_def ws_trans_actions_def rd_append ws_trans_targs_lengths
    ws_trans_actions_lengths)

lemma ws_trans_1:
  "t0_trans ws_tables 0 = Some (2, [0])"
  "t0_trans ws_tables 1 = Some (0, [])"
  "t0_trans ws_tables 2 = Some (428, [0])"
  "t0_trans ws_tables 3 = Some (431, [0])"
  "t0_trans ws_tables 4 = Some (438, [0])"
  "t0_trans ws_tables 5 = Some (3, [9, 10])"
  "t0_trans ws_tables 6 = Some (2, [])"
  "t0_trans ws_tables 7 = Some (4, [0])"
  "t0_trans ws_tables 8 = Some (4, [])"
  "t0_trans ws_tables 9 = Some (5, [12, 11])"
  "t0_trans ws_tables 10 = Some (418, [12])"
  "t0_trans ws_tables 11 = Some (422, [])"
  "t0_trans ws_tables 12 = Some (424, [12])"
  "t0_trans ws_tables 13 = Some (6, [0])"
  "t0_trans ws_tables 14 = Some (7, [])"
  "t0_trans ws_tables 15 = Some (8, [])"
  "t0_trans ws_tables 16 = Some (9, [])"
  "t0_trans ws_tables 17 = Some (10, [])"
  "t0_trans ws_tables 18 = Some (11, [])"
  "t0_trans ws_tables 19 = Some (12, [])"
  "t0_trans ws_tables 20 = Some (417, [])"
  "t0_trans ws_tables 21 = Some (13, [])"
  "t0_trans ws_tables 22 = Some (14, [17])"
  "t0_trans ws_tables 23 = Some (416, [])"
  "t0_trans ws_tables 24 = Some (15, [])"
  "t0_trans ws_tables 25 = Some (16, [5])"
  "t0_trans ws_tables 26 = Some (17, [5, 1])"
  "t0_trans ws_tables 27 = Some (23, [5, 1])"
  "t0_trans ws_tables 28 = Some (49, [5, 1])"
  "t0_trans ws_tables 29 = Some (252, [5, 1])"
  "t0_trans ws_tables 30 = Some (264, [5, 1])"
  "t0_trans ws_tables 31 = Some (360, [5, 1])"
  "t0_trans ws_tables 32 = Some (442, [27])"
  "t0_trans ws_tables 33 = Some (18, [2])"
  "t0_trans ws_tables 34 = Some (17, [])"
  "t0_trans ws_tables 35 = Some (19, [2])"
  "t0_trans ws_tables 36 = Some (18, [])"
  "t0_trans ws_tables 37 = Some (19, [])"
  "t0_trans ws_tables 38 = Some (20, [3])"
  "t0_trans ws_tables 39 = Some (19, [3])"
  "t0_trans ws_tables 40 = Some (413, [3, 4])"
  "t0_trans ws_tables 41 = Some (20, [])"
  "t0_trans ws_tables 42 = Some (21, [4])"
  "t0_trans ws_tables 43 = Some (22, [])"
  "t0_trans ws_tables 44 = Some (24, [])"
  "t0_trans ws_tables 45 = Some (25, [])"
  "t0_trans ws_tables 46 = Some (26, [])"
  "t0_trans ws_tables 47 = Some (388, [])"
  "t0_trans ws_tables 48 = Some (27, [])"
  "t0_trans ws_tables 49 = Some (28, [])"
  "t0_trans ws_tables 50 = Some (29, [])"
  "t0_trans ws_tables 51 = Some (30, [])"
  "t0_trans ws_tables 52 = Some (31, [])"
  "t0_trans ws_tables 53 = Some (32, [])"
  "t0_trans ws_tables 54 = Some (33, [2])"
  "t0_trans ws_tables 55 = Some (34, [2])"
  "t0_trans ws_tables 56 = Some (33, [])"
  "t0_trans ws_tables 57 = Some (34, [])"
  "t0_trans ws_tables 58 = Some (35, [])"
  "t0_trans ws_tables 59 = Some (38, [3, 0])"
  "t0_trans ws_tables 60 = Some (36, [])"
  "t0_trans ws_tables 61 = Some (37, [])"
  "t0_trans ws_tables 62 = Some (39, [21])"
  "t0_trans ws_tables 63 = Some (47, [21, 4])"
  by (simp_all add: t0_trans_def ws_acts ws_targs_rd ws_tacts_rd ws_trans_targs_1_def ws_trans_actions_1_def)

lemma ws_trans_2:
  "t0_trans ws_tables 64 = Some (38, [])"
  "t0_trans ws_tables 65 = Some (43, [21])"
  "t0_trans ws_tables 66 = Some (39, [])"
  "t0_trans ws_tables 67 = Some (40, [])"
  "t0_trans ws_tables 68 = Some (43, [])"
  "t0_trans ws_tables 69 = Some (41, [])"
  "t0_trans ws_tables 70 = Some (42, [])"
  "t0_trans ws_tables 71 = Some (44, [])"
  "t0_trans ws_tables 72 = Some (38, [0])"
  "t0_trans ws_tables 73 = Some (45, [])"
  "t0_trans ws_tables 74 = Some (46, [])"
  "t0_trans ws_tables 75 = Some (48, [])"
  "t0_trans ws_tables 76 = Some (50, [])"
  "t0_trans ws_tables 77 = Some (51, [])"
  "t0_trans ws_tables 78 = Some (52, [])"
  "t0_trans ws_tables 79 = Some (53, [2])"
  "t0_trans ws_tables 80 = Some (54, [2])"
  "t0_trans ws_tables 81 = Some (53, [])"
  "t0_trans ws_tables 82 = Some (54, [])"
  "t0_trans ws_tables 83 = Some (55, [])"
  "t0_trans ws_tables 84 = Some (58, [3, 0])"
  "t0_trans ws_tables 85 = Some (96, [3, 0])"
  "t0_trans ws_tables 86 = Some (98, [3, 0])"
  "t0_trans ws_tables 87 = Some (97, [3, 0])"
  "t0_trans ws_tables 88 = Some (62, [3, 0])"
  "t0_trans ws_tables 89 = Some (100, [3, 0])"
  "t0_trans ws_tables 90 = Some (56, [])"
  "t0_trans ws_tables 91 = Some (57, [])"
  "t0_trans ws_tables 92 = Some (59, [])"
  "t0_trans ws_tables 93 = Some (78, [])"
  "t0_trans ws_tables 94 = Some (60, [])"
  "t0_trans ws_tables 95 = Some (61, [])"
  "t0_trans ws_tables 96 = Some (62, [])"
  "t0_trans ws_tables 97 = Some (14, [18, 4])"
  "t0_trans ws_tables 98 = Some (63, [])"
  "t0_trans ws_tables 99 = Some (64, [])"
  "t0_trans ws_tables 100 = Some (65, [18])"
  "t0_trans ws_tables 101 = Some (66, [0])"
  "t0_trans ws_tables 102 = Some (72, [0])"
  "t0_trans ws_tables 103 = Some (74, [0])"
  "t0_trans ws_tables 104 = Some (73, [0])"
  "t0_trans ws_tables 105 = Some (67, [])"
  "t0_trans ws_tables 106 = Some (71, [])"
  "t0_trans ws_tables 107 = Some (68, [])"
  "t0_trans ws_tables 108 = Some (70, [])"
  "t0_trans ws_tables 109 = Some (69, [])"
  "t0_trans ws_tables 110 = Some (14, [19, 4])"
  "t0_trans ws_tables 111 = Some (73, [])"
  "t0_trans ws_tables 112 = Some (75, [])"
  "t0_trans ws_tables 113 = Some (76, [])"
  "t0_trans ws_tables 114 = Some (77, [])"
  "t0_trans ws_tables 115 = Some (79, [])"
  "t0_trans ws_tables 116 = Some (92, [])"
  "t0_trans ws_tables 117 = Some (94, [])"
  "t0_trans ws_tables 118 = Some (93, [])"
  "t0_trans ws_tables 119 = Some (80, [])"
  "t0_trans ws_tables 120 = Some (81, [])"
  "t0_trans ws_tables 121 = Some (88, [])"
  "t0_trans ws_tables 122 = Some (90, [])"
  "t0_trans ws_tables 123 = Some (89, [])"
  "t0_trans ws_tables 124 = Some (82, [])"
  "t0_trans ws_tables 125 = Some (83, [])"
  "t0_trans ws_tables 126 = Some (84, [])"
  "t0_trans ws_tables 127 = Some (86, [])"
  by (simp_all add: t0_trans_def ws_acts ws_targs_rd ws_tacts_rd ws_trans_targs_2_def ws_trans_actions_2_def)

lemma ws_trans_3:
  "t0_trans ws_tables 128 = Some (85, [])"
  "t0_trans ws_tables 129 = Some (87, [])"
  "t0_trans ws_tables 130 = Some (91, [])"
  "t0_trans ws_tables 131 = Some (95, [])"
  "t0_trans ws_tables 132 = Some (97, [])"
  "t0_trans ws_tables 133 = Some (58, [])"
  "t0_trans ws_tables 134 = Some (99, [])"
  "t0_trans ws_tables 135 = Some (101, [])"
  "t0_trans ws_tables 136 = Some (237, [])"
  "t0_trans ws_tables 137 = Some (102, [])"
  "t0_trans ws_tables 138 = Some (105, [])"
  "t0_trans ws_tables 139 = Some (103, [])"
  "t0_trans ws_tables 140 = Some (104, [])"
  "t0_trans ws_tables 141 = Some (106, [])"
  "t0_trans ws_tables 142 = Some (223, [])"
  "t0_trans ws_tables 143 = Some (107, [])"
  "t0_trans ws_tables 144 = Some (110, [])"
  "t0_trans ws_tables 145 = Some (108, [])"
  "t0_trans ws_tables 146 = Some (109, [])"
  "t0_trans ws_tables 147 = Some (111, [])"
  "t0_trans ws_tables 148 = Some (209, [])"
  "t0_trans ws_tables 149 = Some (112, [])"
  "t0_trans ws_tables 150 = Some (115, [])"
  "t0_trans ws_tables 151 = Some (113, [])"
  "t0_trans ws_tables 152 = Some (114, [])"
  "t0_trans ws_tables 153 = Some (116, [])"
  "t0_trans ws_tables 154 = Some (195, [])"
  "t0_trans ws_tables 155 = Some (117, [])"
  "t0_trans ws_tables 156 = Some (120, [])"
  "t0_trans ws_tables 157 = Some (118, [])"
  "t0_trans ws_tables 158 = Some (119, [])"
  "t0_trans ws_tables 159 = Some (121, [])"
  "t0_trans ws_tables 160 = Some (181, [])"
  "t0_trans ws_tables 161 = Some (122, [])"
  "t0_trans ws_tables 162 = Some (125, [])"
  "t0_trans ws_tables 163 = Some (123, [])"
  "t0_trans ws_tables 164 = Some (124, [])"
  "t0_trans ws_tables 165 = Some (126, [])"
  "t0_trans ws_tables 166 = Some (167, [])"
  "t0_trans ws_tables 167 = Some (127, [])"
  "t0_trans ws_tables 168 = Some (130, [])"
  "t0_trans ws_tables 169 = Some (128, [])"
  "t0_trans ws_tables 170 = Some (129, [])"
  "t0_trans ws_tables 171 = Some (131, [])"
  "t0_trans ws_tables 172 = Some (158, [])"
  "t0_trans ws_tables 173 = Some (161, [])"
  "t0_trans ws_tables 174 = Some (164, [])"
  "t0_trans ws_tables 175 = Some (165, [])"
  "t0_trans ws_tables 176 = Some (166, [])"
  "t0_trans ws_tables 177 = Some (132, [])"
  "t0_trans ws_tables 178 = Some (151, [])"
  "t0_trans ws_tables 179 = Some (154, [])"
  "t0_trans ws_tables 180 = Some (133, [])"
  "t0_trans ws_tables 181 = Some (147, [])"
  "t0_trans ws_tables 182 = Some (149, [])"
  "t0_trans ws_tables 183 = Some (148, [])"
  "t0_trans ws_tables 184 = Some (134, [])"
  "t0_trans ws_tables 185 = Some (135, [])"
  "t0_trans ws_tables 186 = Some (143, [])"
  "t0_trans ws_tables 187 = Some (145, [])"
  "t0_trans ws_tables 188 = Some (144, [])"
  "t0_trans ws_tables 189 = Some (136, [])"
  "t0_trans ws_tables 190 = Some (137, [])"
  "t0_trans ws_tables 191 = Some (139, [])"
  by (simp_all add: t0_trans_def ws_acts ws_targs_rd ws_tacts_rd ws_trans_targs_3_def ws_trans_actions_3_def)

lemma ws_trans_4:
  "t0_trans ws_tables 192 = Some (141, [])"
  "t0_trans ws_tables 193 = Some (140, [])"
  "t0_trans ws_tables 194 = Some (138, [])"
  "t0_trans ws_tables 195 = Some (142, [])"
  "t0_trans ws_tables 196 = Some (146, [])"
  "t0_trans ws_tables 197 = Some (150, [])"
  "t0_trans ws_tables 198 = Some (152, [])"
  "t0_trans ws_tables 199 = Some (153, [])"
  "t0_trans ws_tables 200 = Some (155, [])"
  "t0_trans ws_tables 201 = Some (156, [])"
  "t0_trans ws_tables 202 = Some (157, [])"
  "t0_trans ws_tables 203 = Some (159, [])"
  "t0_trans ws_tables 204 = Some (160, [])"
  "t0_trans ws_tables 205 = Some (162, [])"
  "t0_trans ws_tables 206 = Some (163, [])"
  "t0_trans ws_tables 207 = Some (168, [])"
  "t0_trans ws_tables 208 = Some (173, [])"
  "t0_trans ws_tables 209 = Some (176, [])"
  "t0_trans ws_tables 210 = Some (179, [])"
  "t0_trans ws_tables 211 = Some (180, [])"
  "t0_trans ws_tables 212 = Some (169, [])"
  "t0_trans ws_tables 213 = Some (172, [])"
  "t0_trans ws_tables 214 = Some (170, [])"
  "t0_trans ws_tables 215 = Some (171, [])"
  "t0_trans ws_tables 216 = Some (174, [])"
  "t0_trans ws_tables 217 = Some (175, [])"
  "t0_trans ws_tables 218 = Some (177, [])"
  "t0_trans ws_tables 219 = Some (178, [])"
  "t0_trans ws_tables 220 = Some (182, [])"
  "t0_trans ws_tables 221 = Some (187, [])"
  "t0_trans ws_tables 222 = Some (190, [])"
  "t0_trans ws_tables 223 = Some (193, [])"
  "t0_trans ws_tables 224 = Some (194, [])"
  "t0_trans ws_tables 225 = Some (183, [])"
  "t0_trans ws_tables 226 = Some (186, [])"
  "t0_trans ws_tables 227 = Some (184, [])"
  "t0_trans ws_tables 228 = Some (185, [])"
  "t0_trans ws_tables 229 = Some (188, [])"
  "t0_trans ws_tables 230 = Some (189, [])"
  "t0_trans ws_tables 231 = Some (191, [])"
  "t0_trans ws_tables 232 = Some (192, [])"
  "t0_trans ws_tables 233 = Some (196, [])"
  "t0_trans ws_tables 234 = Some (201, [])"
  "t0_trans ws_tables 235 = Some (204, [])"
  "t0_trans ws_tables 236 = Some (207, [])"
  "t0_trans ws_tables 237 = Some (208, [])"
  "t0_trans ws_tables 238 = Some (197, [])"
  "t0_trans ws_tables 239 = Some (200, [])"
  "t0_trans ws_tables 240 = Some (198, [])"
  "t0_trans ws_tables 241 = Some (199, [])"
  "t0_trans ws_tables 242 = Some (202, [])"
  "t0_trans ws_tables 243 = Some (203, [])"
  "t0_trans ws_tables 244 = Some (205, [])"
  "t0_trans ws_tables 245 = Some (206, [])"
  "t0_trans ws_tables 246 = Some (210, [])"
  "t0_trans ws_tables 247 = Some (215, [])"
  "t0_trans ws_tables 248 = Some (218, [])"
  "t0_trans ws_tables 249 = Some (221, [])"
  "t0_trans ws_tables 250 = Some (222, [])"
  "t0_trans ws_tables 251 = Some (211, [])"
  "t0_trans ws_tables 252 = Some (214, [])"
  "t0_trans ws_tables 253 = Some (212, [])"
  "t0_trans ws_tables 254 = Some (213, [])"
  "t0_trans ws_tables 255 = Some (216, [])"
  by (simp_all add: t0_trans_def ws_acts ws_targs_rd ws_tacts_rd ws_trans_targs_4_def ws_trans_actions_4_def)

lemma ws_trans_5:
  "t0_trans ws_tables 256 = Some (217, [])"
  "t0_trans ws_tables 257 = Some (219, [])"
  "t0_trans ws_tables 258 = Some (220, [])"
  "t0_trans ws_tables 259 = Some (224, [])"
  "t0_trans ws_tables 260 = Some (229, [])"
  "t0_trans ws_tables 261 = Some (232, [])"
  "t0_trans ws_tables 262 = Some (235, [])"
  "t0_trans ws_tables 263 = Some (236, [])"
  "t0_trans ws_tables 264 = Some (225, [])"
  "t0_trans ws_tables 265 = Some (228, [])"
  "t0_trans ws_tables 266 = Some (226, [])"
  "t0_trans ws_tables 267 = Some (227, [])"
  "t0_trans ws_tables 268 = Some (230, [])"
  "t0_trans ws_tables 269 = Some (231, [])"
  "t0_trans ws_tables 270 = Some (233, [])"
  "t0_trans ws_tables 271 = Some (234, [])"
  "t0_trans ws_tables 272 = Some (238, [])"
  "t0_trans ws_tables 273 = Some (239, [])"
  "t0_trans ws_tables 274 = Some (244, [])"
  "t0_trans ws_tables 275 = Some (247, [])"
  "t0_trans ws_tables 276 = Some (250, [])"
  "t0_trans ws_tables 277 = Some (251, [])"
  "t0_trans ws_tables 278 = Some (240, [])"
  "t0_trans ws_tables 279 = Some (243, [])"
  "t0_trans ws_tables 280 = Some (241, [])"
  "t0_trans ws_tables 281 = Some (242, [])"
  "t0_trans ws_tables 282 = Some (245, [])"
  "t0_trans ws_tables 283 = Some (246, [])"
  "t0_trans ws_tables 284 = Some (248, [])"
  "t0_trans ws_tables 285 = Some (249, [])"
  "t0_trans ws_tables 286 = Some (253, [])"
  "t0_trans ws_tables 287 = Some (254, [])"
  "t0_trans ws_tables 288 = Some (255, [])"
  "t0_trans ws_tables 289 = Some (256, [])"
  "t0_trans ws_tables 290 = Some (257, [])"
  "t0_trans ws_tables 291 = Some (258, [2])"
  "t0_trans ws_tables 292 = Some (259, [2])"
  "t0_trans ws_tables 293 = Some (258, [])"
  "t0_trans ws_tables 294 = Some (259, [])"
  "t0_trans ws_tables 295 = Some (260, [])"
  "t0_trans ws_tables 296 = Some (263, [3, 0])"
  "t0_trans ws_tables 297 = Some (261, [])"
  "t0_trans ws_tables 298 = Some (262, [])"
  "t0_trans ws_tables 299 = Some (14, [23, 4])"
  "t0_trans ws_tables 300 = Some (263, [])"
  "t0_trans ws_tables 301 = Some (265, [])"
  "t0_trans ws_tables 302 = Some (266, [])"
  "t0_trans ws_tables 303 = Some (267, [])"
  "t0_trans ws_tables 304 = Some (268, [])"
  "t0_trans ws_tables 305 = Some (269, [])"
  "t0_trans ws_tables 306 = Some (270, [])"
  "t0_trans ws_tables 307 = Some (271, [])"
  "t0_trans ws_tables 308 = Some (272, [])"
  "t0_trans ws_tables 309 = Some (273, [])"
  "t0_trans ws_tables 310 = Some (274, [])"
  "t0_trans ws_tables 311 = Some (275, [])"
  "t0_trans ws_tables 312 = Some (276, [])"
  "t0_trans ws_tables 313 = Some (277, [])"
  "t0_trans ws_tables 314 = Some (278, [])"
  "t0_trans ws_tables 315 = Some (252, [])"
  "t0_trans ws_tables 316 = Some (336, [])"
  "t0_trans ws_tables 317 = Some (373, [])"
  "t0_trans ws_tables 318 = Some (279, [])"
  "t0_trans ws_tables 319 = Some (280, [])"
  by (simp_all add: t0_trans_def ws_acts ws_targs_rd ws_tacts_rd ws_trans_targs_5_def ws_trans_actions_5_def)

lemma ws_trans_6:
  "t0_trans ws_tables 320 = Some (281, [2])"
  "t0_trans ws_tables 321 = Some (282, [2])"
  "t0_trans ws_tables 322 = Some (281, [])"
  "t0_trans ws_tables 323 = Some (282, [])"
  "t0_trans ws_tables 324 = Some (283, [])"
  "t0_trans ws_tables 325 = Some (286, [3, 0])"
  "t0_trans ws_tables 326 = Some (284, [])"
  "t0_trans ws_tables 327 = Some (285, [])"
  "t0_trans ws_tables 328 = Some (14, [25, 4])"
  "t0_trans ws_tables 329 = Some (287, [])"
  "t0_trans ws_tables 330 = Some (288, [])"
  "t0_trans ws_tables 331 = Some (289, [])"
  "t0_trans ws_tables 332 = Some (290, [])"
  "t0_trans ws_tables 333 = Some (291, [])"
  "t0_trans ws_tables 334 = Some (292, [])"
  "t0_trans ws_tables 335 = Some (293, [])"
  "t0_trans ws_tables 336 = Some (294, [])"
  "t0_trans ws_tables 337 = Some (295, [])"
  "t0_trans ws_tables 338 = Some (296, [])"
  "t0_trans ws_tables 339 = Some (297, [])"
  "t0_trans ws_tables 340 = Some (298, [])"
  "t0_trans ws_tables 341 = Some (299, [])"
  "t0_trans ws_tables 342 = Some (300, [])"
  "t0_trans ws_tables 343 = Some (301, [])"
  "t0_trans ws_tables 344 = Some (302, [])"
  "t0_trans ws_tables 345 = Some (303, [])"
  "t0_trans ws_tables 346 = Some (304, [])"
  "t0_trans ws_tables 347 = Some (305, [])"
  "t0_trans ws_tables 348 = Some (306, [])"
  "t0_trans ws_tables 349 = Some (307, [])"
  "t0_trans ws_tables 350 = Some (308, [])"
  "t0_trans ws_tables 351 = Some (309, [])"
  "t0_trans ws_tables 352 = Some (310, [])"
  "t0_trans ws_tables 353 = Some (311, [])"
  "t0_trans ws_tables 354 = Some (312, [])"
  "t0_trans ws_tables 355 = Some (313, [])"
  "t0_trans ws_tables 356 = Some (314, [])"
  "t0_trans ws_tables 357 = Some (315, [])"
  "t0_trans ws_tables 358 = Some (316, [])"
  "t0_trans ws_tables 359 = Some (317, [])"
  "t0_trans ws_tables 360 = Some (318, [])"
  "t0_trans ws_tables 361 = Some (319, [])"
  "t0_trans ws_tables 362 = Some (320, [])"
  "t0_trans ws_tables 363 = Some (321, [])"
  "t0_trans ws_tables 364 = Some (322, [])"
  "t0_trans ws_tables 365 = Some (323, [])"
  "t0_trans ws_tables 366 = Some (324, [])"
  "t0_trans ws_tables 367 = Some (325, [])"
  "t0_trans ws_tables 368 = Some (326, [])"
  "t0_trans ws_tables 369 = Some (327, [])"
  "t0_trans ws_tables 370 = Some (328, [])"
  "t0_trans ws_tables 371 = Some (329, [])"
  "t0_trans ws_tables 372 = Some (330, [])"
  "t0_trans ws_tables 373 = Some (331, [])"
  "t0_trans ws_tables 374 = Some (332, [])"
  "t0_trans ws_tables 375 = Some (333, [])"
  "t0_trans ws_tables 376 = Some (334, [])"
  "t0_trans ws_tables 377 = Some (335, [])"
  "t0_trans ws_tables 378 = Some (337, [])"
  "t0_trans ws_tables 379 = Some (338, [])"
  "t0_trans ws_tables 380 = Some (339, [])"
  "t0_trans ws_tables 381 = Some (340, [])"
  "t0_trans ws_tables 382 = Some (341, [])"
  "t0_trans ws_tables 383 = Some (342, [])"
  by (simp_all add: t0_trans_def ws_acts ws_targs_rd ws_tacts_rd ws_trans_targs_6_def ws_trans_actions_6_def)

lemma ws_trans_7:
  "t0_trans ws_tables 384 = Some (343, [])"
  "t0_trans ws_tables 385 = Some (344, [2])"
  "t0_trans ws_tables 386 = Some (345, [2])"
  "t0_trans ws_tables 387 = Some (344, [])"
  "t0_trans ws_tables 388 = Some (345, [])"
  "t0_trans ws_tables 389 = Some (346, [])"
  "t0_trans ws_tables 390 = Some (349, [3, 0])"
  "t0_trans ws_tables 391 = Some (347, [])"
  "t0_trans ws_tables 392 = Some (348, [])"
  "t0_trans ws_tables 393 = Some (350, [26])"
  "t0_trans ws_tables 394 = Some (358, [26, 4])"
  "t0_trans ws_tables 395 = Some (349, [])"
  "t0_trans ws_tables 396 = Some (354, [26])"
  "t0_trans ws_tables 397 = Some (350, [])"
  "t0_trans ws_tables 398 = Some (351, [])"
  "t0_trans ws_tables 399 = Some (354, [])"
  "t0_trans ws_tables 400 = Some (352, [])"
  "t0_trans ws_tables 401 = Some (353, [])"
  "t0_trans ws_tables 402 = Some (355, [])"
  "t0_trans ws_tables 403 = Some (349, [0])"
  "t0_trans ws_tables 404 = Some (356, [])"
  "t0_trans ws_tables 405 = Some (357, [])"
  "t0_trans ws_tables 406 = Some (359, [])"
  "t0_trans ws_tables 407 = Some (361, [])"
  "t0_trans ws_tables 408 = Some (362, [])"
  "t0_trans ws_tables 409 = Some (363, [])"
  "t0_trans ws_tables 410 = Some (364, [])"
  "t0_trans ws_tables 411 = Some (365, [])"
  "t0_trans ws_tables 412 = Some (366, [])"
  "t0_trans ws_tables 413 = Some (367, [2])"
  "t0_trans ws_tables 414 = Some (368, [2])"
  "t0_trans ws_tables 415 = Some (367, [])"
  "t0_trans ws_tables 416 = Some (368, [])"
  "t0_trans ws_tables 417 = Some (369, [])"
  "t0_trans ws_tables 418 = Some (372, [3, 0])"
  "t0_trans ws_tables 419 = Some (370, [])"
  "t0_trans ws_tables 420 = Some (371, [])"
  "t0_trans ws_tables 421 = Some (14, [22, 4])"
  "t0_trans ws_tables 422 = Some (372, [])"
  "t0_trans ws_tables 423 = Some (374, [])"
  "t0_trans ws_tables 424 = Some (375, [])"
  "t0_trans ws_tables 425 = Some (376, [])"
  "t0_trans ws_tables 426 = Some (377, [])"
  "t0_trans ws_tables 427 = Some (378, [])"
  "t0_trans ws_tables 428 = Some (379, [])"
  "t0_trans ws_tables 429 = Some (380, [2])"
  "t0_trans ws_tables 430 = Some (381, [2])"
  "t0_trans ws_tables 431 = Some (380, [])"
  "t0_trans ws_tables 432 = Some (381, [])"
  "t0_trans ws_tables 433 = Some (382, [])"
  "t0_trans ws_tables 434 = Some (385, [3, 0])"
  "t0_trans ws_tables 435 = Some (383, [])"
  "t0_trans ws_tables 436 = Some (384, [])"
  "t0_trans ws_tables 437 = Some (14, [24, 4])"
  "t0_trans ws_tables 438 = Some (386, [])"
  "t0_trans ws_tables 439 = Some (387, [])"
  "t0_trans ws_tables 440 = Some (389, [])"
  "t0_trans ws_tables 441 = Some (390, [])"
  "t0_trans ws_tables 442 = Some (391, [])"
  "t0_trans ws_tables 443 = Some (392, [])"
  "t0_trans ws_tables 444 = Some (393, [])"
  "t0_trans ws_tables 445 = Some (394, [])"
  "t0_trans ws_tables 446 = Some (395, [])"
  "t0_trans ws_tables 447 = Some (396, [])"
  by (simp_all add: t0_trans_def ws_acts ws_targs_rd ws_tacts_rd ws_trans_targs_7_def ws_trans_actions_7_def)

lemma ws_trans_8:
  "t0_trans ws_tables 448 = Some (397, [])"
  "t0_trans ws_tables 449 = Some (398, [])"
  "t0_trans ws_tables 450 = Some (399, [2])"
  "t0_trans ws_tables 451 = Some (400, [2])"
  "t0_trans ws_tables 452 = Some (399, [])"
  "t0_trans ws_tables 453 = Some (400, [])"
  "t0_trans ws_tables 454 = Some (401, [])"
  "t0_trans ws_tables 455 = Some (404, [3, 0])"
  "t0_trans ws_tables 456 = Some (402, [])"
  "t0_trans ws_tables 457 = Some (403, [])"
  "t0_trans ws_tables 458 = Some (14, [20, 4])"
  "t0_trans ws_tables 459 = Some (405, [])"
  "t0_trans ws_tables 460 = Some (406, [])"
  "t0_trans ws_tables 461 = Some (407, [])"
  "t0_trans ws_tables 462 = Some (408, [])"
  "t0_trans ws_tables 463 = Some (409, [])"
  "t0_trans ws_tables 464 = Some (410, [])"
  "t0_trans ws_tables 465 = Some (411, [])"
  "t0_trans ws_tables 466 = Some (412, [])"
  "t0_trans ws_tables 467 = Some (414, [])"
  "t0_trans ws_tables 468 = Some (415, [])"
  "t0_trans ws_tables 469 = Some (415, [3])"
  "t0_trans ws_tables 470 = Some (21, [3, 4])"
  "t0_trans ws_tables 471 = Some (419, [15])"
  "t0_trans ws_tables 472 = Some (5, [15, 16, 11])"
  "t0_trans ws_tables 473 = Some (420, [15])"
  "t0_trans ws_tables 474 = Some (419, [])"
  "t0_trans ws_tables 475 = Some (5, [16, 11])"
  "t0_trans ws_tables 476 = Some (420, [])"
  "t0_trans ws_tables 477 = Some (421, [])"
  "t0_trans ws_tables 478 = Some (423, [])"
  "t0_trans ws_tables 479 = Some (425, [13])"
  "t0_trans ws_tables 480 = Some (5, [13, 14, 11])"
  "t0_trans ws_tables 481 = Some (418, [13, 14])"
  "t0_trans ws_tables 482 = Some (426, [13])"
  "t0_trans ws_tables 483 = Some (425, [])"
  "t0_trans ws_tables 484 = Some (5, [14, 11])"
  "t0_trans ws_tables 485 = Some (418, [14])"
  "t0_trans ws_tables 486 = Some (426, [])"
  "t0_trans ws_tables 487 = Some (427, [])"
  "t0_trans ws_tables 488 = Some (429, [])"
  "t0_trans ws_tables 489 = Some (430, [])"
  "t0_trans ws_tables 490 = Some (3, [6, 9, 10])"
  "t0_trans ws_tables 491 = Some (432, [])"
  "t0_trans ws_tables 492 = Some (433, [])"
  "t0_trans ws_tables 493 = Some (434, [])"
  "t0_trans ws_tables 494 = Some (435, [])"
  "t0_trans ws_tables 495 = Some (436, [])"
  "t0_trans ws_tables 496 = Some (437, [])"
  "t0_trans ws_tables 497 = Some (3, [8, 9, 10])"
  "t0_trans ws_tables 498 = Some (439, [])"
  "t0_trans ws_tables 499 = Some (440, [])"
  "t0_trans ws_tables 500 = Some (441, [])"
  "t0_trans ws_tables 501 = Some (3, [7, 9, 10])"
  by (simp_all add: t0_trans_def ws_acts ws_targs_rd ws_tacts_rd ws_trans_targs_8_def ws_trans_actions_8_def)

lemmas ws_trans = ws_trans_1 ws_trans_2 ws_trans_3 ws_trans_4 ws_trans_5 ws_trans_6 ws_trans_7 ws_trans_8

subsection \<open>The rows\<close>

definition ws_rows_1 :: "(int \<times> int list) t0_row list" where
  "ws_rows_1 =
    [([33, 37, 39, 71, 79, 80, 126], [(42, 43), (45, 46), (48, 57), (65, 90), (95, 122)],
      [(2, [0]), (2, [0]), (2, [0]), (428, [0]), (431, [0]), (438, [0]), (2, [0]), (2, [0]),
      (2, [0]), (2, [0]), (2, [0]), (2, [0]), (0, [])]),
     ([32, 33, 37, 39, 126], [(42, 43), (45, 46), (48, 57), (65, 90), (95, 122)],
      [(3, [9, 10]), (2, []), (2, []), (2, []), (2, []), (2, []), (2, []), (2, []), (2, []),
      (2, []), (0, [])]),
     ([47], [],
      [(4, [0]), (0, [])]),
     ([32, 35, 37, 59, 63, 127], [(0, 31)],
      [(5, [12, 11]), (418, [12]), (422, []), (0, []), (424, [12]), (0, []), (0, []), (4, [])]),
     ([72, 104], [],
      [(6, [0]), (6, [0]), (0, [])]),
     ([84, 116], [],
      [(7, []), (7, []), (0, [])]),
     ([84, 116], [],
      [(8, []), (8, []), (0, [])]),
     ([80, 112], [],
      [(9, []), (9, []), (0, [])]),
     ([47], [],
      [(10, []), (0, [])]),
     ([], [(48, 57)],
      [(11, []), (0, [])]),
     ([46], [(48, 57)],
      [(12, []), (417, []), (0, [])]),
     ([], [(48, 57)],
      [(13, []), (0, [])]),
     ([13], [(48, 57)],
      [(14, [17]), (416, []), (0, [])]),
     ([10], [],
      [(15, []), (0, [])]),
     ([13, 33, 37, 39, 67, 72, 79, 83, 85, 99, 104, 111, 115, 117, 126], [(42, 43), (45, 46), (48, 57), (65, 90), (95, 122)],
      [(16, [5]), (17, [5, 1]), (17, [5, 1]), (17, [5, 1]), (23, [5, 1]), (49, [5, 1]),
      (252, [5, 1]), (264, [5, 1]), (360, [5, 1]), (23, [5, 1]), (49, [5, 1]), (252, [5, 1]),
      (264, [5, 1]), (360, [5, 1]), (17, [5, 1]), (17, [5, 1]), (17, [5, 1]), (17, [5, 1]),
      (17, [5, 1]), (17, [5, 1]), (0, [])]),
     ([10], [],
      [(442, [27]), (0, [])]),
     ([9, 32, 33, 37, 39, 58, 126], [(42, 43), (45, 46), (48, 57), (65, 90), (95, 122)],
      [(18, [2]), (18, [2]), (17, []), (17, []), (17, []), (19, [2]), (17, []), (17, []),
      (17, []), (17, []), (17, []), (17, []), (0, [])]),
     ([9, 32, 58], [],
      [(18, []), (18, []), (19, []), (0, [])]),
     ([9, 13, 32, 127], [(0, 31)],
      [(19, [3]), (413, [3, 4]), (19, [3]), (0, []), (0, []), (20, [3])]),
     ([13, 127], [(0, 8), (10, 31)],
      [(21, [4]), (0, []), (0, []), (0, []), (20, [])]),
     ([10], [],
      [(22, []), (0, [])]),
     ([9, 13, 32, 33, 37, 39, 67, 72, 79, 83, 85, 99, 104, 111, 115, 117, 126], [(42, 43), (45, 46), (48, 57), (65, 90), (95, 122)],
      [(20, []), (16, [5]), (20, []), (17, [5, 1]), (17, [5, 1]), (17, [5, 1]), (23, [5, 1]),
      (49, [5, 1]), (252, [5, 1]), (264, [5, 1]), (360, [5, 1]), (23, [5, 1]), (49, [5, 1]),
      (252, [5, 1]), (264, [5, 1]), (360, [5, 1]), (17, [5, 1]), (17, [5, 1]), (17, [5, 1]),
      (17, [5, 1]), (17, [5, 1]), (17, [5, 1]), (0, [])]),
     ([9, 32, 33, 37, 39, 58, 79, 111, 126], [(42, 43), (45, 46), (48, 57), (65, 90), (95, 122)],
      [(18, [2]), (18, [2]), (17, []), (17, []), (17, []), (19, [2]), (24, []), (24, []),
      (17, []), (17, []), (17, []), (17, []), (17, []), (17, []), (0, [])]),
     ([9, 32, 33, 37, 39, 58, 78, 110, 126], [(42, 43), (45, 46), (48, 57), (65, 90), (95, 122)],
      [(18, [2]), (18, [2]), (17, []), (17, []), (17, []), (19, [2]), (25, []), (25, []),
      (17, []), (17, []), (17, []), (17, []), (17, []), (17, []), (0, [])]),
     ([9, 32, 33, 37, 39, 58, 78, 84, 110, 116, 126], [(42, 43), (45, 46), (48, 57), (65, 90), (95, 122)],
      [(18, [2]), (18, [2]), (17, []), (17, []), (17, []), (19, [2]), (26, []), (388, []),
      (26, []), (388, []), (17, []), (17, []), (17, []), (17, []), (17, []), (17, []), (0, [])]),
     ([9, 32, 33, 37, 39, 58, 69, 101, 126], [(42, 43), (45, 46), (48, 57), (65, 90), (95, 122)],
      [(18, [2]), (18, [2]), (17, []), (17, []), (17, []), (19, [2]), (27, []), (27, []),
      (17, []), (17, []), (17, []), (17, []), (17, []), (17, []), (0, [])]),
     ([9, 32, 33, 37, 39, 58, 67, 99, 126], [(42, 43), (45, 46), (48, 57), (65, 90), (95, 122)],
      [(18, [2]), (18, [2]), (17, []), (17, []), (17, []), (19, [2]), (28, []), (28, []),
      (17, []), (17, []), (17, []), (17, []), (17, []), (17, []), (0, [])]),
     ([9, 32, 33, 37, 39, 58, 84, 116, 126], [(42, 43), (45, 46), (48, 57), (65, 90), (95, 122)],
      [(18, [2]), (18, [2]), (17, []), (17, []), (17, []), (19, [2]), (29, []), (29, []),
      (17, []), (17, []), (17, []), (17, []), (17, []), (17, []), (0, [])]),
     ([9, 32, 33, 37, 39, 58, 73, 105, 126], [(42, 43), (45, 46), (48, 57), (65, 90), (95, 122)],
      [(18, [2]), (18, [2]), (17, []), (17, []), (17, []), (19, [2]), (30, []), (30, []),
      (17, []), (17, []), (17, []), (17, []), (17, []), (17, []), (0, [])]),
     ([9, 32, 33, 37, 39, 58, 79, 111, 126], [(42, 43), (45, 46), (48, 57), (65, 90), (95, 122)],
      [(18, [2]), (18, [2]), (17, []), (17, []), (17, []), (19, [2]), (31, []), (31, []),
      (17, []), (17, []), (17, []), (17, []), (17, []), (17, []), (0, [])])]"

lemma ws_check_1:
  "rows_check (t0_trans ws_tables) 0 0 (tl ws_key_offsets_1) (tl ws_index_offsets_1)
     (tl ws_single_lengths_1) (tl ws_range_lengths_1) ws_trans_keys_1 ws_indicies_1 ws_rows_1"
  by (simp only: ws_key_offsets_1_def ws_index_offsets_1_def ws_single_lengths_1_def
    ws_range_lengths_1_def ws_trans_keys_1_def ws_indicies_1_def ws_rows_1_def ws_trans rows_simps)

definition ws_rows_2 :: "(int \<times> int list) t0_row list" where
  "ws_rows_2 =
    [([9, 32, 33, 37, 39, 58, 78, 110, 126], [(42, 43), (45, 46), (48, 57), (65, 90), (95, 122)],
      [(18, [2]), (18, [2]), (17, []), (17, []), (17, []), (19, [2]), (32, []), (32, []),
      (17, []), (17, []), (17, []), (17, []), (17, []), (17, []), (0, [])]),
     ([9, 32, 33, 37, 39, 58, 126], [(42, 43), (45, 46), (48, 57), (65, 90), (95, 122)],
      [(33, [2]), (33, [2]), (17, []), (17, []), (17, []), (34, [2]), (17, []), (17, []),
      (17, []), (17, []), (17, []), (17, []), (0, [])]),
     ([9, 32, 58], [],
      [(33, []), (33, []), (34, []), (0, [])]),
     ([9, 13, 32, 33, 37, 39, 126], [(42, 43), (45, 46), (48, 57), (65, 90), (95, 122)],
      [(34, []), (35, []), (34, []), (38, [3, 0]), (38, [3, 0]), (38, [3, 0]), (38, [3, 0]),
      (38, [3, 0]), (38, [3, 0]), (38, [3, 0]), (38, [3, 0]), (38, [3, 0]), (0, [])]),
     ([10], [],
      [(36, []), (0, [])]),
     ([9, 32], [],
      [(37, []), (37, []), (0, [])]),
     ([9, 32, 33, 37, 39, 126], [(42, 43), (45, 46), (48, 57), (65, 90), (95, 122)],
      [(37, []), (37, []), (38, [3, 0]), (38, [3, 0]), (38, [3, 0]), (38, [3, 0]), (38, [3, 0]),
      (38, [3, 0]), (38, [3, 0]), (38, [3, 0]), (38, [3, 0]), (0, [])]),
     ([9, 13, 32, 33, 37, 39, 44, 126], [(42, 46), (48, 57), (65, 90), (95, 122)],
      [(39, [21]), (47, [21, 4]), (39, [21]), (38, []), (38, []), (38, []), (43, [21]), (38, []),
      (38, []), (38, []), (38, []), (38, []), (0, [])]),
     ([9, 13, 32, 44], [],
      [(39, []), (40, []), (39, []), (43, []), (0, [])]),
     ([10], [],
      [(41, []), (0, [])]),
     ([9, 32], [],
      [(42, []), (42, []), (0, [])]),
     ([9, 32, 44], [],
      [(42, []), (42, []), (43, []), (0, [])]),
     ([9, 13, 32, 33, 37, 39, 126], [(42, 43), (45, 46), (48, 57), (65, 90), (95, 122)],
      [(43, []), (44, []), (43, []), (38, [0]), (38, [0]), (38, [0]), (38, [0]), (38, [0]),
      (38, [0]), (38, [0]), (38, [0]), (38, [0]), (0, [])]),
     ([10], [],
      [(45, []), (0, [])]),
     ([9, 32], [],
      [(46, []), (46, []), (0, [])]),
     ([9, 32, 33, 37, 39, 126], [(42, 43), (45, 46), (48, 57), (65, 90), (95, 122)],
      [(46, []), (46, []), (38, [0]), (38, [0]), (38, [0]), (38, [0]), (38, [0]), (38, [0]),
      (38, [0]), (38, [0]), (38, [0]), (0, [])]),
     ([10], [],
      [(48, []), (0, [])]),
     ([9, 13, 32, 33, 37, 39, 67, 72, 79, 83, 85, 99, 104, 111, 115, 117, 126], [(42, 43), (45, 46), (48, 57), (65, 90), (95, 122)],
      [(42, []), (16, [5]), (42, []), (17, [5, 1]), (17, [5, 1]), (17, [5, 1]), (23, [5, 1]),
      (49, [5, 1]), (252, [5, 1]), (264, [5, 1]), (360, [5, 1]), (23, [5, 1]), (49, [5, 1]),
      (252, [5, 1]), (264, [5, 1]), (360, [5, 1]), (17, [5, 1]), (17, [5, 1]), (17, [5, 1]),
      (17, [5, 1]), (17, [5, 1]), (17, [5, 1]), (0, [])]),
     ([9, 32, 33, 37, 39, 58, 79, 111, 126], [(42, 43), (45, 46), (48, 57), (65, 90), (95, 122)],
      [(18, [2]), (18, [2]), (17, []), (17, []), (17, []), (19, [2]), (50, []), (50, []),
      (17, []), (17, []), (17, []), (17, []), (17, []), (17, []), (0, [])]),
     ([9, 32, 33, 37, 39, 58, 83, 115, 126], [(42, 43), (45, 46), (48, 57), (65, 90), (95, 122)],
      [(18, [2]), (18, [2]), (17, []), (17, []), (17, []), (19, [2]), (51, []), (51, []),
      (17, []), (17, []), (17, []), (17, []), (17, []), (17, []), (0, [])]),
     ([9, 32, 33, 37, 39, 58, 84, 116, 126], [(42, 43), (45, 46), (48, 57), (65, 90), (95, 122)],
      [(18, [2]), (18, [2]), (17, []), (17, []), (17, []), (19, [2]), (52, []), (52, []),
      (17, []), (17, []), (17, []), (17, []), (17, []), (17, []), (0, [])]),
     ([9, 32, 33, 37, 39, 58, 126], [(42, 43), (45, 46), (48, 57), (65, 90), (95, 122)],
      [(53, [2]), (53, [2]), (17, []), (17, []), (17, []), (54, [2]), (17, []), (17, []),
      (17, []), (17, []), (17, []), (17, []), (0, [])]),
     ([9, 32, 58], [],
      [(53, []), (53, []), (54, []), (0, [])]),
     ([9, 13, 32, 48, 49, 50, 91], [(51, 57), (65, 90), (97, 122)],
      [(54, []), (55, []), (54, []), (58, [3, 0]), (96, [3, 0]), (98, [3, 0]), (100, [3, 0]),
      (97, [3, 0]), (62, [3, 0]), (62, [3, 0]), (0, [])]),
     ([10], [],
      [(56, []), (0, [])]),
     ([9, 32], [],
      [(57, []), (57, []), (0, [])]),
     ([9, 32, 48, 49, 50, 91], [(51, 57), (65, 90), (97, 122)],
      [(57, []), (57, []), (58, [3, 0]), (96, [3, 0]), (98, [3, 0]), (100, [3, 0]), (97, [3, 0]),
      (62, [3, 0]), (62, [3, 0]), (0, [])]),
     ([45, 46, 95], [(48, 57), (65, 90), (97, 122)],
      [(59, []), (78, []), (59, []), (60, []), (60, []), (60, []), (0, [])]),
     ([45, 95], [(48, 57), (65, 90), (97, 122)],
      [(59, []), (59, []), (60, []), (60, []), (60, []), (0, [])]),
     ([45, 46, 95], [(48, 57), (65, 90), (97, 122)],
      [(59, []), (61, []), (59, []), (60, []), (60, []), (60, []), (0, [])])]"

lemma ws_check_2:
  "rows_check (t0_trans ws_tables) 301 258 ws_key_offsets_2 ws_index_offsets_2
     ws_single_lengths_2 ws_range_lengths_2 ws_trans_keys_2 ws_indicies_2 ws_rows_2"
  by (simp only: ws_key_offsets_2_def ws_index_offsets_2_def ws_single_lengths_2_def
    ws_range_lengths_2_def ws_trans_keys_2_def ws_indicies_2_def ws_rows_2_def ws_trans rows_simps)

definition ws_rows_3 :: "(int \<times> int list) t0_row list" where
  "ws_rows_3 =
    [([], [(48, 57), (65, 90), (97, 122)],
      [(60, []), (62, []), (62, []), (0, [])]),
     ([13, 45, 46, 58, 95], [(48, 57), (65, 90), (97, 122)],
      [(14, [18, 4]), (63, []), (64, []), (65, [18]), (63, []), (62, []), (62, []), (62, []),
      (0, [])]),
     ([45, 95], [(48, 57), (65, 90), (97, 122)],
      [(63, []), (63, []), (62, []), (62, []), (62, []), (0, [])]),
     ([13, 58], [(48, 57), (65, 90), (97, 122)],
      [(14, [18, 4]), (65, [18]), (60, []), (62, []), (62, []), (0, [])]),
     ([48, 54], [(49, 53), (55, 57)],
      [(66, [0]), (74, [0]), (72, [0]), (73, [0]), (0, [])]),
     ([48], [(49, 57)],
      [(67, []), (71, []), (0, [])]),
     ([48], [(49, 57)],
      [(68, []), (70, []), (0, [])]),
     ([], [(49, 57)],
      [(69, []), (0, [])]),
     ([13], [],
      [(14, [19, 4]), (0, [])]),
     ([13], [(48, 57)],
      [(14, [19, 4]), (69, []), (0, [])]),
     ([13], [(48, 57)],
      [(14, [19, 4]), (70, []), (0, [])]),
     ([13], [(48, 57)],
      [(14, [19, 4]), (73, []), (0, [])]),
     ([13], [(48, 57)],
      [(14, [19, 4]), (71, []), (0, [])]),
     ([13, 53], [(48, 52), (54, 57)],
      [(14, [19, 4]), (75, []), (73, []), (71, []), (0, [])]),
     ([13, 53], [(48, 52), (54, 57)],
      [(14, [19, 4]), (76, []), (71, []), (70, []), (0, [])]),
     ([13, 51], [(48, 50), (52, 57)],
      [(14, [19, 4]), (77, []), (70, []), (69, []), (0, [])]),
     ([13], [(48, 53)],
      [(14, [19, 4]), (69, []), (0, [])]),
     ([48, 49, 50], [(51, 57), (65, 90), (97, 122)],
      [(79, []), (92, []), (94, []), (93, []), (62, []), (62, []), (0, [])]),
     ([45, 46, 95], [(48, 57), (65, 90), (97, 122)],
      [(59, []), (80, []), (59, []), (60, []), (60, []), (60, []), (0, [])]),
     ([48, 49, 50], [(51, 57), (65, 90), (97, 122)],
      [(81, []), (88, []), (90, []), (89, []), (62, []), (62, []), (0, [])]),
     ([45, 46, 95], [(48, 57), (65, 90), (97, 122)],
      [(59, []), (82, []), (59, []), (60, []), (60, []), (60, []), (0, [])]),
     ([48, 49, 50], [(51, 57), (65, 90), (97, 122)],
      [(83, []), (84, []), (86, []), (85, []), (62, []), (62, []), (0, [])]),
     ([13, 45, 46, 58, 95], [(48, 57), (65, 90), (97, 122)],
      [(14, [18, 4]), (59, []), (61, []), (65, [18]), (59, []), (60, []), (60, []), (60, []),
      (0, [])]),
     ([13, 45, 46, 58, 95], [(48, 57), (65, 90), (97, 122)],
      [(14, [18, 4]), (59, []), (61, []), (65, [18]), (59, []), (85, []), (60, []), (60, []),
      (0, [])]),
     ([13, 45, 46, 58, 95], [(48, 57), (65, 90), (97, 122)],
      [(14, [18, 4]), (59, []), (61, []), (65, [18]), (59, []), (83, []), (60, []), (60, []),
      (0, [])]),
     ([13, 45, 46, 53, 58, 95], [(48, 52), (54, 57), (65, 90), (97, 122)],
      [(14, [18, 4]), (59, []), (61, []), (87, []), (65, [18]), (59, []), (85, []), (83, []),
      (60, []), (60, []), (0, [])]),
     ([13, 45, 46, 58, 95], [(48, 53), (54, 57), (65, 90), (97, 122)],
      [(14, [18, 4]), (59, []), (61, []), (65, [18]), (59, []), (83, []), (60, []), (60, []),
      (60, []), (0, [])]),
     ([45, 46, 95], [(48, 57), (65, 90), (97, 122)],
      [(59, []), (82, []), (59, []), (89, []), (60, []), (60, []), (0, [])]),
     ([45, 46, 95], [(48, 57), (65, 90), (97, 122)],
      [(59, []), (82, []), (59, []), (81, []), (60, []), (60, []), (0, [])]),
     ([45, 46, 53, 95], [(48, 52), (54, 57), (65, 90), (97, 122)],
      [(59, []), (82, []), (91, []), (59, []), (89, []), (81, []), (60, []), (60, []), (0, [])])]"

lemma ws_check_3:
  "rows_check (t0_trans ws_tables) 597 510 ws_key_offsets_3 ws_index_offsets_3
     ws_single_lengths_3 ws_range_lengths_3 ws_trans_keys_3 ws_indicies_3 ws_rows_3"
  by (simp only: ws_key_offsets_3_def ws_index_offsets_3_def ws_single_lengths_3_def
    ws_range_lengths_3_def ws_trans_keys_3_def ws_indicies_3_def ws_rows_3_def ws_trans rows_simps)

definition ws_rows_4 :: "(int \<times> int list) t0_row list" where
  "ws_rows_4 =
    [([45, 46, 95], [(48, 53), (54, 57), (65, 90), (97, 122)],
      [(59, []), (82, []), (59, []), (81, []), (60, []), (60, []), (60, []), (0, [])]),
     ([45, 46, 95], [(48, 57), (65, 90), (97, 122)],
      [(59, []), (80, []), (59, []), (93, []), (60, []), (60, []), (0, [])]),
     ([45, 46, 95], [(48, 57), (65, 90), (97, 122)],
      [(59, []), (80, []), (59, []), (79, []), (60, []), (60, []), (0, [])]),
     ([45, 46, 53, 95], [(48, 52), (54, 57), (65, 90), (97, 122)],
      [(59, []), (80, []), (95, []), (59, []), (93, []), (79, []), (60, []), (60, []), (0, [])]),
     ([45, 46, 95], [(48, 53), (54, 57), (65, 90), (97, 122)],
      [(59, []), (80, []), (59, []), (79, []), (60, []), (60, []), (60, []), (0, [])]),
     ([45, 46, 95], [(48, 57), (65, 90), (97, 122)],
      [(59, []), (78, []), (59, []), (97, []), (60, []), (60, []), (0, [])]),
     ([45, 46, 95], [(48, 57), (65, 90), (97, 122)],
      [(59, []), (78, []), (59, []), (58, []), (60, []), (60, []), (0, [])]),
     ([45, 46, 53, 95], [(48, 52), (54, 57), (65, 90), (97, 122)],
      [(59, []), (78, []), (99, []), (59, []), (97, []), (58, []), (60, []), (60, []), (0, [])]),
     ([45, 46, 95], [(48, 53), (54, 57), (65, 90), (97, 122)],
      [(59, []), (78, []), (59, []), (58, []), (60, []), (60, []), (60, []), (0, [])]),
     ([58], [(48, 57), (65, 70), (97, 102)],
      [(237, []), (101, []), (101, []), (101, []), (0, [])]),
     ([58], [(48, 57), (65, 70), (97, 102)],
      [(105, []), (102, []), (102, []), (102, []), (0, [])]),
     ([58], [(48, 57), (65, 70), (97, 102)],
      [(105, []), (103, []), (103, []), (103, []), (0, [])]),
     ([58], [(48, 57), (65, 70), (97, 102)],
      [(105, []), (104, []), (104, []), (104, []), (0, [])]),
     ([58], [],
      [(105, []), (0, [])]),
     ([58], [(48, 57), (65, 70), (97, 102)],
      [(223, []), (106, []), (106, []), (106, []), (0, [])]),
     ([58], [(48, 57), (65, 70), (97, 102)],
      [(110, []), (107, []), (107, []), (107, []), (0, [])]),
     ([58], [(48, 57), (65, 70), (97, 102)],
      [(110, []), (108, []), (108, []), (108, []), (0, [])]),
     ([58], [(48, 57), (65, 70), (97, 102)],
      [(110, []), (109, []), (109, []), (109, []), (0, [])]),
     ([58], [],
      [(110, []), (0, [])]),
     ([58], [(48, 57), (65, 70), (97, 102)],
      [(209, []), (111, []), (111, []), (111, []), (0, [])]),
     ([58], [(48, 57), (65, 70), (97, 102)],
      [(115, []), (112, []), (112, []), (112, []), (0, [])]),
     ([58], [(48, 57), (65, 70), (97, 102)],
      [(115, []), (113, []), (113, []), (113, []), (0, [])]),
     ([58], [(48, 57), (65, 70), (97, 102)],
      [(115, []), (114, []), (114, []), (114, []), (0, [])]),
     ([58], [],
      [(115, []), (0, [])]),
     ([58], [(48, 57), (65, 70), (97, 102)],
      [(195, []), (116, []), (116, []), (116, []), (0, [])]),
     ([58], [(48, 57), (65, 70), (97, 102)],
      [(120, []), (117, []), (117, []), (117, []), (0, [])]),
     ([58], [(48, 57), (65, 70), (97, 102)],
      [(120, []), (118, []), (118, []), (118, []), (0, [])]),
     ([58], [(48, 57), (65, 70), (97, 102)],
      [(120, []), (119, []), (119, []), (119, []), (0, [])]),
     ([58], [],
      [(120, []), (0, [])]),
     ([58], [(48, 57), (65, 70), (97, 102)],
      [(181, []), (121, []), (121, []), (121, []), (0, [])])]"

lemma ws_check_4:
  "rows_check (t0_trans ws_tables) 813 686 ws_key_offsets_4 ws_index_offsets_4
     ws_single_lengths_4 ws_range_lengths_4 ws_trans_keys_4 ws_indicies_4 ws_rows_4"
  by (simp only: ws_key_offsets_4_def ws_index_offsets_4_def ws_single_lengths_4_def
    ws_range_lengths_4_def ws_trans_keys_4_def ws_indicies_4_def ws_rows_4_def ws_trans rows_simps)

definition ws_rows_5 :: "(int \<times> int list) t0_row list" where
  "ws_rows_5 =
    [([58], [(48, 57), (65, 70), (97, 102)],
      [(125, []), (122, []), (122, []), (122, []), (0, [])]),
     ([58], [(48, 57), (65, 70), (97, 102)],
      [(125, []), (123, []), (123, []), (123, []), (0, [])]),
     ([58], [(48, 57), (65, 70), (97, 102)],
      [(125, []), (124, []), (124, []), (124, []), (0, [])]),
     ([58], [],
      [(125, []), (0, [])]),
     ([58], [(48, 57), (65, 70), (97, 102)],
      [(167, []), (126, []), (126, []), (126, []), (0, [])]),
     ([58], [(48, 57), (65, 70), (97, 102)],
      [(130, []), (127, []), (127, []), (127, []), (0, [])]),
     ([58], [(48, 57), (65, 70), (97, 102)],
      [(130, []), (128, []), (128, []), (128, []), (0, [])]),
     ([58], [(48, 57), (65, 70), (97, 102)],
      [(130, []), (129, []), (129, []), (129, []), (0, [])]),
     ([58], [],
      [(130, []), (0, [])]),
     ([48, 49, 50, 58], [(51, 57), (65, 70), (97, 102)],
      [(131, []), (158, []), (161, []), (165, []), (164, []), (166, []), (166, []), (0, [])]),
     ([46, 58], [(48, 57), (65, 70), (97, 102)],
      [(132, []), (154, []), (151, []), (151, []), (151, []), (0, [])]),
     ([48, 49, 50], [(51, 57)],
      [(133, []), (147, []), (149, []), (148, []), (0, [])]),
     ([46], [],
      [(134, []), (0, [])]),
     ([48, 49, 50], [(51, 57)],
      [(135, []), (143, []), (145, []), (144, []), (0, [])]),
     ([46], [],
      [(136, []), (0, [])]),
     ([48, 49, 50], [(51, 57)],
      [(137, []), (139, []), (141, []), (140, []), (0, [])]),
     ([93], [],
      [(138, []), (0, [])]),
     ([13, 58], [],
      [(14, [18, 4]), (65, [18]), (0, [])]),
     ([93], [(48, 57)],
      [(138, []), (140, []), (0, [])]),
     ([93], [(48, 57)],
      [(138, []), (137, []), (0, [])]),
     ([53, 93], [(48, 52), (54, 57)],
      [(142, []), (138, []), (140, []), (137, []), (0, [])]),
     ([93], [(48, 53)],
      [(138, []), (137, []), (0, [])]),
     ([46], [(48, 57)],
      [(136, []), (144, []), (0, [])]),
     ([46], [(48, 57)],
      [(136, []), (135, []), (0, [])]),
     ([46, 53], [(48, 52), (54, 57)],
      [(136, []), (146, []), (144, []), (135, []), (0, [])]),
     ([46], [(48, 53)],
      [(136, []), (135, []), (0, [])]),
     ([46], [(48, 57)],
      [(134, []), (148, []), (0, [])]),
     ([46], [(48, 57)],
      [(134, []), (133, []), (0, [])]),
     ([46, 53], [(48, 52), (54, 57)],
      [(134, []), (150, []), (148, []), (133, []), (0, [])]),
     ([46], [(48, 53)],
      [(134, []), (133, []), (0, [])])]"

lemma ws_check_5:
  "rows_check (t0_trans ws_tables) 1029 849 ws_key_offsets_5 ws_index_offsets_5
     ws_single_lengths_5 ws_range_lengths_5 ws_trans_keys_5 ws_indicies_5 ws_rows_5"
  by (simp only: ws_key_offsets_5_def ws_index_offsets_5_def ws_single_lengths_5_def
    ws_range_lengths_5_def ws_trans_keys_5_def ws_indicies_5_def ws_rows_5_def ws_trans rows_simps)

definition ws_rows_6 :: "(int \<times> int list) t0_row list" where
  "ws_rows_6 =
    [([58], [(48, 57), (65, 70), (97, 102)],
      [(154, []), (152, []), (152, []), (152, []), (0, [])]),
     ([58], [(48, 57), (65, 70), (97, 102)],
      [(154, []), (153, []), (153, []), (153, []), (0, [])]),
     ([58], [],
      [(154, []), (0, [])]),
     ([58], [(48, 57), (65, 70), (97, 102)],
      [(137, []), (155, []), (155, []), (155, []), (0, [])]),
     ([93], [(48, 57), (65, 70), (97, 102)],
      [(138, []), (156, []), (156, []), (156, []), (0, [])]),
     ([93], [(48, 57), (65, 70), (97, 102)],
      [(138, []), (157, []), (157, []), (157, []), (0, [])]),
     ([93], [(48, 57), (65, 70), (97, 102)],
      [(138, []), (137, []), (137, []), (137, []), (0, [])]),
     ([46, 58], [(48, 57), (65, 70), (97, 102)],
      [(132, []), (154, []), (159, []), (151, []), (151, []), (0, [])]),
     ([46, 58], [(48, 57), (65, 70), (97, 102)],
      [(132, []), (154, []), (160, []), (152, []), (152, []), (0, [])]),
     ([46, 58], [(48, 57), (65, 70), (97, 102)],
      [(132, []), (154, []), (153, []), (153, []), (153, []), (0, [])]),
     ([46, 53, 58], [(48, 52), (54, 57), (65, 70), (97, 102)],
      [(132, []), (162, []), (154, []), (159, []), (163, []), (151, []), (151, []), (0, [])]),
     ([46, 58], [(48, 53), (54, 57), (65, 70), (97, 102)],
      [(132, []), (154, []), (160, []), (152, []), (152, []), (152, []), (0, [])]),
     ([46, 58], [(48, 57), (65, 70), (97, 102)],
      [(132, []), (154, []), (152, []), (152, []), (152, []), (0, [])]),
     ([46, 58], [(48, 57), (65, 70), (97, 102)],
      [(132, []), (154, []), (163, []), (151, []), (151, []), (0, [])]),
     ([93], [(48, 57), (65, 70), (97, 102)],
      [(138, []), (155, []), (155, []), (155, []), (0, [])]),
     ([58], [(48, 57), (65, 70), (97, 102)],
      [(154, []), (151, []), (151, []), (151, []), (0, [])]),
     ([48, 49, 50, 93], [(51, 57), (65, 70), (97, 102)],
      [(168, []), (173, []), (176, []), (138, []), (179, []), (180, []), (180, []), (0, [])]),
     ([46, 58, 93], [(48, 57), (65, 70), (97, 102)],
      [(132, []), (172, []), (138, []), (169, []), (169, []), (169, []), (0, [])]),
     ([58, 93], [(48, 57), (65, 70), (97, 102)],
      [(172, []), (138, []), (170, []), (170, []), (170, []), (0, [])]),
     ([58, 93], [(48, 57), (65, 70), (97, 102)],
      [(172, []), (138, []), (171, []), (171, []), (171, []), (0, [])]),
     ([58, 93], [],
      [(172, []), (138, []), (0, [])]),
     ([], [(48, 57), (65, 70), (97, 102)],
      [(155, []), (155, []), (155, []), (0, [])]),
     ([46, 58, 93], [(48, 57), (65, 70), (97, 102)],
      [(132, []), (172, []), (138, []), (174, []), (169, []), (169, []), (0, [])]),
     ([46, 58, 93], [(48, 57), (65, 70), (97, 102)],
      [(132, []), (172, []), (138, []), (175, []), (170, []), (170, []), (0, [])]),
     ([46, 58, 93], [(48, 57), (65, 70), (97, 102)],
      [(132, []), (172, []), (138, []), (171, []), (171, []), (171, []), (0, [])]),
     ([46, 53, 58, 93], [(48, 52), (54, 57), (65, 70), (97, 102)],
      [(132, []), (177, []), (172, []), (138, []), (174, []), (178, []), (169, []), (169, []),
      (0, [])]),
     ([46, 58, 93], [(48, 53), (54, 57), (65, 70), (97, 102)],
      [(132, []), (172, []), (138, []), (175, []), (170, []), (170, []), (170, []), (0, [])]),
     ([46, 58, 93], [(48, 57), (65, 70), (97, 102)],
      [(132, []), (172, []), (138, []), (170, []), (170, []), (170, []), (0, [])]),
     ([46, 58, 93], [(48, 57), (65, 70), (97, 102)],
      [(132, []), (172, []), (138, []), (178, []), (169, []), (169, []), (0, [])]),
     ([58, 93], [(48, 57), (65, 70), (97, 102)],
      [(172, []), (138, []), (169, []), (169, []), (169, []), (0, [])])]"

lemma ws_check_6:
  "rows_check (t0_trans ws_tables) 1163 968 ws_key_offsets_6 ws_index_offsets_6
     ws_single_lengths_6 ws_range_lengths_6 ws_trans_keys_6 ws_indicies_6 ws_rows_6"
  by (simp only: ws_key_offsets_6_def ws_index_offsets_6_def ws_single_lengths_6_def
    ws_range_lengths_6_def ws_trans_keys_6_def ws_indicies_6_def ws_rows_6_def ws_trans rows_simps)

definition ws_rows_7 :: "(int \<times> int list) t0_row list" where
  "ws_rows_7 =
    [([48, 49, 50, 93], [(51, 57), (65, 70), (97, 102)],
      [(182, []), (187, []), (190, []), (138, []), (193, []), (194, []), (194, []), (0, [])]),
     ([46, 58, 93], [(48, 57), (65, 70), (97, 102)],
      [(132, []), (186, []), (138, []), (183, []), (183, []), (183, []), (0, [])]),
     ([58, 93], [(48, 57), (65, 70), (97, 102)],
      [(186, []), (138, []), (184, []), (184, []), (184, []), (0, [])]),
     ([58, 93], [(48, 57), (65, 70), (97, 102)],
      [(186, []), (138, []), (185, []), (185, []), (185, []), (0, [])]),
     ([58, 93], [],
      [(186, []), (138, []), (0, [])]),
     ([48, 49, 50], [(51, 57), (65, 70), (97, 102)],
      [(168, []), (173, []), (176, []), (179, []), (180, []), (180, []), (0, [])]),
     ([46, 58, 93], [(48, 57), (65, 70), (97, 102)],
      [(132, []), (186, []), (138, []), (188, []), (183, []), (183, []), (0, [])]),
     ([46, 58, 93], [(48, 57), (65, 70), (97, 102)],
      [(132, []), (186, []), (138, []), (189, []), (184, []), (184, []), (0, [])]),
     ([46, 58, 93], [(48, 57), (65, 70), (97, 102)],
      [(132, []), (186, []), (138, []), (185, []), (185, []), (185, []), (0, [])]),
     ([46, 53, 58, 93], [(48, 52), (54, 57), (65, 70), (97, 102)],
      [(132, []), (191, []), (186, []), (138, []), (188, []), (192, []), (183, []), (183, []),
      (0, [])]),
     ([46, 58, 93], [(48, 53), (54, 57), (65, 70), (97, 102)],
      [(132, []), (186, []), (138, []), (189, []), (184, []), (184, []), (184, []), (0, [])]),
     ([46, 58, 93], [(48, 57), (65, 70), (97, 102)],
      [(132, []), (186, []), (138, []), (184, []), (184, []), (184, []), (0, [])]),
     ([46, 58, 93], [(48, 57), (65, 70), (97, 102)],
      [(132, []), (186, []), (138, []), (192, []), (183, []), (183, []), (0, [])]),
     ([58, 93], [(48, 57), (65, 70), (97, 102)],
      [(186, []), (138, []), (183, []), (183, []), (183, []), (0, [])]),
     ([48, 49, 50, 93], [(51, 57), (65, 70), (97, 102)],
      [(196, []), (201, []), (204, []), (138, []), (207, []), (208, []), (208, []), (0, [])]),
     ([46, 58, 93], [(48, 57), (65, 70), (97, 102)],
      [(132, []), (200, []), (138, []), (197, []), (197, []), (197, []), (0, [])]),
     ([58, 93], [(48, 57), (65, 70), (97, 102)],
      [(200, []), (138, []), (198, []), (198, []), (198, []), (0, [])]),
     ([58, 93], [(48, 57), (65, 70), (97, 102)],
      [(200, []), (138, []), (199, []), (199, []), (199, []), (0, [])]),
     ([58, 93], [],
      [(200, []), (138, []), (0, [])]),
     ([48, 49, 50], [(51, 57), (65, 70), (97, 102)],
      [(182, []), (187, []), (190, []), (193, []), (194, []), (194, []), (0, [])]),
     ([46, 58, 93], [(48, 57), (65, 70), (97, 102)],
      [(132, []), (200, []), (138, []), (202, []), (197, []), (197, []), (0, [])]),
     ([46, 58, 93], [(48, 57), (65, 70), (97, 102)],
      [(132, []), (200, []), (138, []), (203, []), (198, []), (198, []), (0, [])]),
     ([46, 58, 93], [(48, 57), (65, 70), (97, 102)],
      [(132, []), (200, []), (138, []), (199, []), (199, []), (199, []), (0, [])]),
     ([46, 53, 58, 93], [(48, 52), (54, 57), (65, 70), (97, 102)],
      [(132, []), (205, []), (200, []), (138, []), (202, []), (206, []), (197, []), (197, []),
      (0, [])]),
     ([46, 58, 93], [(48, 53), (54, 57), (65, 70), (97, 102)],
      [(132, []), (200, []), (138, []), (203, []), (198, []), (198, []), (198, []), (0, [])]),
     ([46, 58, 93], [(48, 57), (65, 70), (97, 102)],
      [(132, []), (200, []), (138, []), (198, []), (198, []), (198, []), (0, [])]),
     ([46, 58, 93], [(48, 57), (65, 70), (97, 102)],
      [(132, []), (200, []), (138, []), (206, []), (197, []), (197, []), (0, [])]),
     ([58, 93], [(48, 57), (65, 70), (97, 102)],
      [(200, []), (138, []), (197, []), (197, []), (197, []), (0, [])]),
     ([48, 49, 50, 93], [(51, 57), (65, 70), (97, 102)],
      [(210, []), (215, []), (218, []), (138, []), (221, []), (222, []), (222, []), (0, [])]),
     ([46, 58, 93], [(48, 57), (65, 70), (97, 102)],
      [(132, []), (214, []), (138, []), (211, []), (211, []), (211, []), (0, [])])]"

lemma ws_check_7:
  "rows_check (t0_trans ws_tables) 1400 1147 ws_key_offsets_7 ws_index_offsets_7
     ws_single_lengths_7 ws_range_lengths_7 ws_trans_keys_7 ws_indicies_7 ws_rows_7"
  by (simp only: ws_key_offsets_7_def ws_index_offsets_7_def ws_single_lengths_7_def
    ws_range_lengths_7_def ws_trans_keys_7_def ws_indicies_7_def ws_rows_7_def ws_trans rows_simps)

definition ws_rows_8 :: "(int \<times> int list) t0_row list" where
  "ws_rows_8 =
    [([58, 93], [(48, 57), (65, 70), (97, 102)],
      [(214, []), (138, []), (212, []), (212, []), (212, []), (0, [])]),
     ([58, 93], [(48, 57), (65, 70), (97, 102)],
      [(214, []), (138, []), (213, []), (213, []), (213, []), (0, [])]),
     ([58, 93], [],
      [(214, []), (138, []), (0, [])]),
     ([48, 49, 50], [(51, 57), (65, 70), (97, 102)],
      [(196, []), (201, []), (204, []), (207, []), (208, []), (208, []), (0, [])]),
     ([46, 58, 93], [(48, 57), (65, 70), (97, 102)],
      [(132, []), (214, []), (138, []), (216, []), (211, []), (211, []), (0, [])]),
     ([46, 58, 93], [(48, 57), (65, 70), (97, 102)],
      [(132, []), (214, []), (138, []), (217, []), (212, []), (212, []), (0, [])]),
     ([46, 58, 93], [(48, 57), (65, 70), (97, 102)],
      [(132, []), (214, []), (138, []), (213, []), (213, []), (213, []), (0, [])]),
     ([46, 53, 58, 93], [(48, 52), (54, 57), (65, 70), (97, 102)],
      [(132, []), (219, []), (214, []), (138, []), (216, []), (220, []), (211, []), (211, []),
      (0, [])]),
     ([46, 58, 93], [(48, 53), (54, 57), (65, 70), (97, 102)],
      [(132, []), (214, []), (138, []), (217, []), (212, []), (212, []), (212, []), (0, [])]),
     ([46, 58, 93], [(48, 57), (65, 70), (97, 102)],
      [(132, []), (214, []), (138, []), (212, []), (212, []), (212, []), (0, [])]),
     ([46, 58, 93], [(48, 57), (65, 70), (97, 102)],
      [(132, []), (214, []), (138, []), (220, []), (211, []), (211, []), (0, [])]),
     ([58, 93], [(48, 57), (65, 70), (97, 102)],
      [(214, []), (138, []), (211, []), (211, []), (211, []), (0, [])]),
     ([48, 49, 50, 93], [(51, 57), (65, 70), (97, 102)],
      [(224, []), (229, []), (232, []), (138, []), (235, []), (236, []), (236, []), (0, [])]),
     ([46, 58, 93], [(48, 57), (65, 70), (97, 102)],
      [(132, []), (228, []), (138, []), (225, []), (225, []), (225, []), (0, [])]),
     ([58, 93], [(48, 57), (65, 70), (97, 102)],
      [(228, []), (138, []), (226, []), (226, []), (226, []), (0, [])]),
     ([58, 93], [(48, 57), (65, 70), (97, 102)],
      [(228, []), (138, []), (227, []), (227, []), (227, []), (0, [])]),
     ([58, 93], [],
      [(228, []), (138, []), (0, [])]),
     ([48, 49, 50], [(51, 57), (65, 70), (97, 102)],
      [(210, []), (215, []), (218, []), (221, []), (222, []), (222, []), (0, [])]),
     ([46, 58, 93], [(48, 57), (65, 70), (97, 102)],
      [(132, []), (228, []), (138, []), (230, []), (225, []), (225, []), (0, [])]),
     ([46, 58, 93], [(48, 57), (65, 70), (97, 102)],
      [(132, []), (228, []), (138, []), (231, []), (226, []), (226, []), (0, [])]),
     ([46, 58, 93], [(48, 57), (65, 70), (97, 102)],
      [(132, []), (228, []), (138, []), (227, []), (227, []), (227, []), (0, [])]),
     ([46, 53, 58, 93], [(48, 52), (54, 57), (65, 70), (97, 102)],
      [(132, []), (233, []), (228, []), (138, []), (230, []), (234, []), (225, []), (225, []),
      (0, [])]),
     ([46, 58, 93], [(48, 53), (54, 57), (65, 70), (97, 102)],
      [(132, []), (228, []), (138, []), (231, []), (226, []), (226, []), (226, []), (0, [])]),
     ([46, 58, 93], [(48, 57), (65, 70), (97, 102)],
      [(132, []), (228, []), (138, []), (226, []), (226, []), (226, []), (0, [])]),
     ([46, 58, 93], [(48, 57), (65, 70), (97, 102)],
      [(132, []), (228, []), (138, []), (234, []), (225, []), (225, []), (0, [])]),
     ([58, 93], [(48, 57), (65, 70), (97, 102)],
      [(228, []), (138, []), (225, []), (225, []), (225, []), (0, [])]),
     ([58], [],
      [(238, []), (0, [])]),
     ([48, 49, 50, 93], [(51, 57), (65, 70), (97, 102)],
      [(239, []), (244, []), (247, []), (138, []), (250, []), (251, []), (251, []), (0, [])]),
     ([46, 58, 93], [(48, 57), (65, 70), (97, 102)],
      [(132, []), (243, []), (138, []), (240, []), (240, []), (240, []), (0, [])]),
     ([58, 93], [(48, 57), (65, 70), (97, 102)],
      [(243, []), (138, []), (241, []), (241, []), (241, []), (0, [])])]"

lemma ws_check_8:
  "rows_check (t0_trans ws_tables) 1663 1352 ws_key_offsets_8 ws_index_offsets_8
     ws_single_lengths_8 ws_range_lengths_8 ws_trans_keys_8 ws_indicies_8 ws_rows_8"
  by (simp only: ws_key_offsets_8_def ws_index_offsets_8_def ws_single_lengths_8_def
    ws_range_lengths_8_def ws_trans_keys_8_def ws_indicies_8_def ws_rows_8_def ws_trans rows_simps)

definition ws_rows_9 :: "(int \<times> int list) t0_row list" where
  "ws_rows_9 =
    [([58, 93], [(48, 57), (65, 70), (97, 102)],
      [(243, []), (138, []), (242, []), (242, []), (242, []), (0, [])]),
     ([58, 93], [],
      [(243, []), (138, []), (0, [])]),
     ([48, 49, 50], [(51, 57), (65, 70), (97, 102)],
      [(224, []), (229, []), (232, []), (235, []), (236, []), (236, []), (0, [])]),
     ([46, 58, 93], [(48, 57), (65, 70), (97, 102)],
      [(132, []), (243, []), (138, []), (245, []), (240, []), (240, []), (0, [])]),
     ([46, 58, 93], [(48, 57), (65, 70), (97, 102)],
      [(132, []), (243, []), (138, []), (246, []), (241, []), (241, []), (0, [])]),
     ([46, 58, 93], [(48, 57), (65, 70), (97, 102)],
      [(132, []), (243, []), (138, []), (242, []), (242, []), (242, []), (0, [])]),
     ([46, 53, 58, 93], [(48, 52), (54, 57), (65, 70), (97, 102)],
      [(132, []), (248, []), (243, []), (138, []), (245, []), (249, []), (240, []), (240, []),
      (0, [])]),
     ([46, 58, 93], [(48, 53), (54, 57), (65, 70), (97, 102)],
      [(132, []), (243, []), (138, []), (246, []), (241, []), (241, []), (241, []), (0, [])]),
     ([46, 58, 93], [(48, 57), (65, 70), (97, 102)],
      [(132, []), (243, []), (138, []), (241, []), (241, []), (241, []), (0, [])]),
     ([46, 58, 93], [(48, 57), (65, 70), (97, 102)],
      [(132, []), (243, []), (138, []), (249, []), (240, []), (240, []), (0, [])]),
     ([58, 93], [(48, 57), (65, 70), (97, 102)],
      [(243, []), (138, []), (240, []), (240, []), (240, []), (0, [])]),
     ([9, 32, 33, 37, 39, 58, 82, 114, 126], [(42, 43), (45, 46), (48, 57), (65, 90), (95, 122)],
      [(18, [2]), (18, [2]), (17, []), (17, []), (17, []), (19, [2]), (253, []), (253, []),
      (17, []), (17, []), (17, []), (17, []), (17, []), (17, []), (0, [])]),
     ([9, 32, 33, 37, 39, 58, 73, 105, 126], [(42, 43), (45, 46), (48, 57), (65, 90), (95, 122)],
      [(18, [2]), (18, [2]), (17, []), (17, []), (17, []), (19, [2]), (254, []), (254, []),
      (17, []), (17, []), (17, []), (17, []), (17, []), (17, []), (0, [])]),
     ([9, 32, 33, 37, 39, 58, 71, 103, 126], [(42, 43), (45, 46), (48, 57), (65, 90), (95, 122)],
      [(18, [2]), (18, [2]), (17, []), (17, []), (17, []), (19, [2]), (255, []), (255, []),
      (17, []), (17, []), (17, []), (17, []), (17, []), (17, []), (0, [])]),
     ([9, 32, 33, 37, 39, 58, 73, 105, 126], [(42, 43), (45, 46), (48, 57), (65, 90), (95, 122)],
      [(18, [2]), (18, [2]), (17, []), (17, []), (17, []), (19, [2]), (256, []), (256, []),
      (17, []), (17, []), (17, []), (17, []), (17, []), (17, []), (0, [])]),
     ([9, 32, 33, 37, 39, 58, 78, 110, 126], [(42, 43), (45, 46), (48, 57), (65, 90), (95, 122)],
      [(18, [2]), (18, [2]), (17, []), (17, []), (17, []), (19, [2]), (257, []), (257, []),
      (17, []), (17, []), (17, []), (17, []), (17, []), (17, []), (0, [])]),
     ([9, 32, 33, 37, 39, 58, 126], [(42, 43), (45, 46), (48, 57), (65, 90), (95, 122)],
      [(258, [2]), (258, [2]), (17, []), (17, []), (17, []), (259, [2]), (17, []), (17, []),
      (17, []), (17, []), (17, []), (17, []), (0, [])]),
     ([9, 32, 58], [],
      [(258, []), (258, []), (259, []), (0, [])]),
     ([9, 13, 32], [(33, 126)],
      [(259, []), (260, []), (259, []), (263, [3, 0]), (0, [])]),
     ([10], [],
      [(261, []), (0, [])]),
     ([9, 32], [],
      [(262, []), (262, []), (0, [])]),
     ([9, 32], [(33, 126)],
      [(262, []), (262, []), (263, [3, 0]), (0, [])]),
     ([13], [(33, 126)],
      [(14, [23, 4]), (263, []), (0, [])]),
     ([9, 32, 33, 37, 39, 58, 69, 101, 126], [(42, 43), (45, 46), (48, 57), (65, 90), (95, 122)],
      [(18, [2]), (18, [2]), (17, []), (17, []), (17, []), (19, [2]), (265, []), (265, []),
      (17, []), (17, []), (17, []), (17, []), (17, []), (17, []), (0, [])]),
     ([9, 32, 33, 37, 39, 58, 67, 99, 126], [(42, 43), (45, 46), (48, 57), (65, 90), (95, 122)],
      [(18, [2]), (18, [2]), (17, []), (17, []), (17, []), (19, [2]), (266, []), (266, []),
      (17, []), (17, []), (17, []), (17, []), (17, []), (17, []), (0, [])]),
     ([9, 32, 33, 37, 39, 45, 46, 58, 126], [(42, 43), (48, 57), (65, 90), (95, 122)],
      [(18, [2]), (18, [2]), (17, []), (17, []), (17, []), (267, []), (17, []), (19, [2]),
      (17, []), (17, []), (17, []), (17, []), (17, []), (0, [])]),
     ([9, 32, 33, 37, 39, 58, 87, 119, 126], [(42, 43), (45, 46), (48, 57), (65, 90), (95, 122)],
      [(18, [2]), (18, [2]), (17, []), (17, []), (17, []), (19, [2]), (268, []), (268, []),
      (17, []), (17, []), (17, []), (17, []), (17, []), (17, []), (0, [])]),
     ([9, 32, 33, 37, 39, 58, 69, 101, 126], [(42, 43), (45, 46), (48, 57), (65, 90), (95, 122)],
      [(18, [2]), (18, [2]), (17, []), (17, []), (17, []), (19, [2]), (269, []), (269, []),
      (17, []), (17, []), (17, []), (17, []), (17, []), (17, []), (0, [])]),
     ([9, 32, 33, 37, 39, 58, 66, 98, 126], [(42, 43), (45, 46), (48, 57), (65, 90), (95, 122)],
      [(18, [2]), (18, [2]), (17, []), (17, []), (17, []), (19, [2]), (270, []), (270, []),
      (17, []), (17, []), (17, []), (17, []), (17, []), (17, []), (0, [])]),
     ([9, 32, 33, 37, 39, 58, 83, 115, 126], [(42, 43), (45, 46), (48, 57), (65, 90), (95, 122)],
      [(18, [2]), (18, [2]), (17, []), (17, []), (17, []), (19, [2]), (271, []), (271, []),
      (17, []), (17, []), (17, []), (17, []), (17, []), (17, []), (0, [])])]"

lemma ws_check_9:
  "rows_check (t0_trans ws_tables) 1916 1550 ws_key_offsets_9 ws_index_offsets_9
     ws_single_lengths_9 ws_range_lengths_9 ws_trans_keys_9 ws_indicies_9 ws_rows_9"
  by (simp only: ws_key_offsets_9_def ws_index_offsets_9_def ws_single_lengths_9_def
    ws_range_lengths_9_def ws_trans_keys_9_def ws_indicies_9_def ws_rows_9_def ws_trans rows_simps)

definition ws_rows_10 :: "(int \<times> int list) t0_row list" where
  "ws_rows_10 =
    [([9, 32, 33, 37, 39, 58, 79, 111, 126], [(42, 43), (45, 46), (48, 57), (65, 90), (95, 122)],
      [(18, [2]), (18, [2]), (17, []), (17, []), (17, []), (19, [2]), (272, []), (272, []),
      (17, []), (17, []), (17, []), (17, []), (17, []), (17, []), (0, [])]),
     ([9, 32, 33, 37, 39, 58, 67, 99, 126], [(42, 43), (45, 46), (48, 57), (65, 90), (95, 122)],
      [(18, [2]), (18, [2]), (17, []), (17, []), (17, []), (19, [2]), (273, []), (273, []),
      (17, []), (17, []), (17, []), (17, []), (17, []), (17, []), (0, [])]),
     ([9, 32, 33, 37, 39, 58, 75, 107, 126], [(42, 43), (45, 46), (48, 57), (65, 90), (95, 122)],
      [(18, [2]), (18, [2]), (17, []), (17, []), (17, []), (19, [2]), (274, []), (274, []),
      (17, []), (17, []), (17, []), (17, []), (17, []), (17, []), (0, [])]),
     ([9, 32, 33, 37, 39, 58, 69, 101, 126], [(42, 43), (45, 46), (48, 57), (65, 90), (95, 122)],
      [(18, [2]), (18, [2]), (17, []), (17, []), (17, []), (19, [2]), (275, []), (275, []),
      (17, []), (17, []), (17, []), (17, []), (17, []), (17, []), (0, [])]),
     ([9, 32, 33, 37, 39, 58, 84, 116, 126], [(42, 43), (45, 46), (48, 57), (65, 90), (95, 122)],
      [(18, [2]), (18, [2]), (17, []), (17, []), (17, []), (19, [2]), (276, []), (276, []),
      (17, []), (17, []), (17, []), (17, []), (17, []), (17, []), (0, [])]),
     ([9, 32, 33, 37, 39, 45, 46, 58, 126], [(42, 43), (48, 57), (65, 90), (95, 122)],
      [(18, [2]), (18, [2]), (17, []), (17, []), (17, []), (277, []), (17, []), (19, [2]),
      (17, []), (17, []), (17, []), (17, []), (17, []), (0, [])]),
     ([9, 32, 33, 37, 39, 58, 75, 79, 80, 86, 107, 111, 112, 118, 126], [(42, 43), (45, 46), (48, 57), (65, 90), (95, 122)],
      [(18, [2]), (18, [2]), (17, []), (17, []), (17, []), (19, [2]), (278, []), (252, []),
      (336, []), (373, []), (278, []), (252, []), (336, []), (373, []), (17, []), (17, []),
      (17, []), (17, []), (17, []), (17, []), (0, [])]),
     ([9, 32, 33, 37, 39, 58, 69, 101, 126], [(42, 43), (45, 46), (48, 57), (65, 90), (95, 122)],
      [(18, [2]), (18, [2]), (17, []), (17, []), (17, []), (19, [2]), (279, []), (279, []),
      (17, []), (17, []), (17, []), (17, []), (17, []), (17, []), (0, [])]),
     ([9, 32, 33, 37, 39, 58, 89, 121, 126], [(42, 43), (45, 46), (48, 57), (65, 90), (95, 122)],
      [(18, [2]), (18, [2]), (17, []), (17, []), (17, []), (19, [2]), (280, []), (280, []),
      (17, []), (17, []), (17, []), (17, []), (17, []), (17, []), (0, [])]),
     ([9, 32, 33, 37, 39, 58, 126], [(42, 43), (45, 46), (48, 57), (65, 90), (95, 122)],
      [(281, [2]), (281, [2]), (17, []), (17, []), (17, []), (282, [2]), (17, []), (17, []),
      (17, []), (17, []), (17, []), (17, []), (0, [])]),
     ([9, 32, 58], [],
      [(281, []), (281, []), (282, []), (0, [])]),
     ([9, 13, 32], [(33, 126)],
      [(282, []), (283, []), (282, []), (286, [3, 0]), (0, [])]),
     ([10], [],
      [(284, []), (0, [])]),
     ([9, 32], [],
      [(285, []), (285, []), (0, [])]),
     ([9, 32], [(33, 126)],
      [(285, []), (285, []), (286, [3, 0]), (0, [])]),
     ([13], [(33, 126)],
      [(14, [25, 4]), (287, []), (0, [])]),
     ([13], [(33, 126)],
      [(14, [25, 4]), (288, []), (0, [])]),
     ([13], [(33, 126)],
      [(14, [25, 4]), (289, []), (0, [])]),
     ([13], [(33, 126)],
      [(14, [25, 4]), (290, []), (0, [])]),
     ([13], [(33, 126)],
      [(14, [25, 4]), (291, []), (0, [])]),
     ([13], [(33, 126)],
      [(14, [25, 4]), (292, []), (0, [])]),
     ([13], [(33, 126)],
      [(14, [25, 4]), (293, []), (0, [])]),
     ([13], [(33, 126)],
      [(14, [25, 4]), (294, []), (0, [])]),
     ([13], [(33, 126)],
      [(14, [25, 4]), (295, []), (0, [])]),
     ([13], [(33, 126)],
      [(14, [25, 4]), (296, []), (0, [])]),
     ([13], [(33, 126)],
      [(14, [25, 4]), (297, []), (0, [])]),
     ([13], [(33, 126)],
      [(14, [25, 4]), (298, []), (0, [])]),
     ([13], [(33, 126)],
      [(14, [25, 4]), (299, []), (0, [])]),
     ([13], [(33, 126)],
      [(14, [25, 4]), (300, []), (0, [])]),
     ([13], [(33, 126)],
      [(14, [25, 4]), (301, []), (0, [])])]"

lemma ws_check_10:
  "rows_check (t0_trans ws_tables) 2272 1837 ws_key_offsets_10 ws_index_offsets_10
     ws_single_lengths_10 ws_range_lengths_10 ws_trans_keys_10 ws_indicies_10 ws_rows_10"
  by (simp only: ws_key_offsets_10_def ws_index_offsets_10_def ws_single_lengths_10_def
    ws_range_lengths_10_def ws_trans_keys_10_def ws_indicies_10_def ws_rows_10_def ws_trans rows_simps)

definition ws_rows_11 :: "(int \<times> int list) t0_row list" where
  "ws_rows_11 =
    [([13], [(33, 126)],
      [(14, [25, 4]), (302, []), (0, [])]),
     ([13], [(33, 126)],
      [(14, [25, 4]), (303, []), (0, [])]),
     ([13], [(33, 126)],
      [(14, [25, 4]), (304, []), (0, [])]),
     ([13], [(33, 126)],
      [(14, [25, 4]), (305, []), (0, [])]),
     ([13], [(33, 126)],
      [(14, [25, 4]), (306, []), (0, [])]),
     ([13], [(33, 126)],
      [(14, [25, 4]), (307, []), (0, [])]),
     ([13], [(33, 126)],
      [(14, [25, 4]), (308, []), (0, [])]),
     ([13], [(33, 126)],
      [(14, [25, 4]), (309, []), (0, [])]),
     ([13], [(33, 126)],
      [(14, [25, 4]), (310, []), (0, [])]),
     ([13], [(33, 126)],
      [(14, [25, 4]), (311, []), (0, [])]),
     ([13], [(33, 126)],
      [(14, [25, 4]), (312, []), (0, [])]),
     ([13], [(33, 126)],
      [(14, [25, 4]), (313, []), (0, [])]),
     ([13], [(33, 126)],
      [(14, [25, 4]), (314, []), (0, [])]),
     ([13], [(33, 126)],
      [(14, [25, 4]), (315, []), (0, [])]),
     ([13], [(33, 126)],
      [(14, [25, 4]), (316, []), (0, [])]),
     ([13], [(33, 126)],
      [(14, [25, 4]), (317, []), (0, [])]),
     ([13], [(33, 126)],
      [(14, [25, 4]), (318, []), (0, [])]),
     ([13], [(33, 126)],
      [(14, [25, 4]), (319, []), (0, [])]),
     ([13], [(33, 126)],
      [(14, [25, 4]), (320, []), (0, [])]),
     ([13], [(33, 126)],
      [(14, [25, 4]), (321, []), (0, [])]),
     ([13], [(33, 126)],
      [(14, [25, 4]), (322, []), (0, [])]),
     ([13], [(33, 126)],
      [(14, [25, 4]), (323, []), (0, [])]),
     ([13], [(33, 126)],
      [(14, [25, 4]), (324, []), (0, [])]),
     ([13], [(33, 126)],
      [(14, [25, 4]), (325, []), (0, [])]),
     ([13], [(33, 126)],
      [(14, [25, 4]), (326, []), (0, [])]),
     ([13], [(33, 126)],
      [(14, [25, 4]), (327, []), (0, [])]),
     ([13], [(33, 126)],
      [(14, [25, 4]), (328, []), (0, [])]),
     ([13], [(33, 126)],
      [(14, [25, 4]), (329, []), (0, [])]),
     ([13], [(33, 126)],
      [(14, [25, 4]), (330, []), (0, [])]),
     ([13], [(33, 126)],
      [(14, [25, 4]), (331, []), (0, [])])]"

lemma ws_check_11:
  "rows_check (t0_trans ws_tables) 2524 2053 ws_key_offsets_11 ws_index_offsets_11
     ws_single_lengths_11 ws_range_lengths_11 ws_trans_keys_11 ws_indicies_11 ws_rows_11"
  by (simp only: ws_key_offsets_11_def ws_index_offsets_11_def ws_single_lengths_11_def
    ws_range_lengths_11_def ws_trans_keys_11_def ws_indicies_11_def ws_rows_11_def ws_trans rows_simps)

definition ws_rows_12 :: "(int \<times> int list) t0_row list" where
  "ws_rows_12 =
    [([13], [(33, 126)],
      [(14, [25, 4]), (332, []), (0, [])]),
     ([13], [(33, 126)],
      [(14, [25, 4]), (333, []), (0, [])]),
     ([13], [(33, 126)],
      [(14, [25, 4]), (334, []), (0, [])]),
     ([13], [(33, 126)],
      [(14, [25, 4]), (335, []), (0, [])]),
     ([13], [],
      [(14, [25, 4]), (0, [])]),
     ([9, 32, 33, 37, 39, 58, 82, 114, 126], [(42, 43), (45, 46), (48, 57), (65, 90), (95, 122)],
      [(18, [2]), (18, [2]), (17, []), (17, []), (17, []), (19, [2]), (337, []), (337, []),
      (17, []), (17, []), (17, []), (17, []), (17, []), (17, []), (0, [])]),
     ([9, 32, 33, 37, 39, 58, 79, 111, 126], [(42, 43), (45, 46), (48, 57), (65, 90), (95, 122)],
      [(18, [2]), (18, [2]), (17, []), (17, []), (17, []), (19, [2]), (338, []), (338, []),
      (17, []), (17, []), (17, []), (17, []), (17, []), (17, []), (0, [])]),
     ([9, 32, 33, 37, 39, 58, 84, 116, 126], [(42, 43), (45, 46), (48, 57), (65, 90), (95, 122)],
      [(18, [2]), (18, [2]), (17, []), (17, []), (17, []), (19, [2]), (339, []), (339, []),
      (17, []), (17, []), (17, []), (17, []), (17, []), (17, []), (0, [])]),
     ([9, 32, 33, 37, 39, 58, 79, 111, 126], [(42, 43), (45, 46), (48, 57), (65, 90), (95, 122)],
      [(18, [2]), (18, [2]), (17, []), (17, []), (17, []), (19, [2]), (340, []), (340, []),
      (17, []), (17, []), (17, []), (17, []), (17, []), (17, []), (0, [])]),
     ([9, 32, 33, 37, 39, 58, 67, 99, 126], [(42, 43), (45, 46), (48, 57), (65, 90), (95, 122)],
      [(18, [2]), (18, [2]), (17, []), (17, []), (17, []), (19, [2]), (341, []), (341, []),
      (17, []), (17, []), (17, []), (17, []), (17, []), (17, []), (0, [])]),
     ([9, 32, 33, 37, 39, 58, 79, 111, 126], [(42, 43), (45, 46), (48, 57), (65, 90), (95, 122)],
      [(18, [2]), (18, [2]), (17, []), (17, []), (17, []), (19, [2]), (342, []), (342, []),
      (17, []), (17, []), (17, []), (17, []), (17, []), (17, []), (0, [])]),
     ([9, 32, 33, 37, 39, 58, 76, 108, 126], [(42, 43), (45, 46), (48, 57), (65, 90), (95, 122)],
      [(18, [2]), (18, [2]), (17, []), (17, []), (17, []), (19, [2]), (343, []), (343, []),
      (17, []), (17, []), (17, []), (17, []), (17, []), (17, []), (0, [])]),
     ([9, 32, 33, 37, 39, 58, 126], [(42, 43), (45, 46), (48, 57), (65, 90), (95, 122)],
      [(344, [2]), (344, [2]), (17, []), (17, []), (17, []), (345, [2]), (17, []), (17, []),
      (17, []), (17, []), (17, []), (17, []), (0, [])]),
     ([9, 32, 58], [],
      [(344, []), (344, []), (345, []), (0, [])]),
     ([9, 13, 32, 33, 37, 39, 126], [(42, 43), (45, 46), (48, 57), (65, 90), (95, 122)],
      [(345, []), (346, []), (345, []), (349, [3, 0]), (349, [3, 0]), (349, [3, 0]),
      (349, [3, 0]), (349, [3, 0]), (349, [3, 0]), (349, [3, 0]), (349, [3, 0]), (349, [3, 0]),
      (0, [])]),
     ([10], [],
      [(347, []), (0, [])]),
     ([9, 32], [],
      [(348, []), (348, []), (0, [])]),
     ([9, 32, 33, 37, 39, 126], [(42, 43), (45, 46), (48, 57), (65, 90), (95, 122)],
      [(348, []), (348, []), (349, [3, 0]), (349, [3, 0]), (349, [3, 0]), (349, [3, 0]),
      (349, [3, 0]), (349, [3, 0]), (349, [3, 0]), (349, [3, 0]), (349, [3, 0]), (0, [])]),
     ([9, 13, 32, 33, 37, 39, 44, 126], [(42, 46), (48, 57), (65, 90), (95, 122)],
      [(350, [26]), (358, [26, 4]), (350, [26]), (349, []), (349, []), (349, []), (354, [26]),
      (349, []), (349, []), (349, []), (349, []), (349, []), (0, [])]),
     ([9, 13, 32, 44], [],
      [(350, []), (351, []), (350, []), (354, []), (0, [])]),
     ([10], [],
      [(352, []), (0, [])]),
     ([9, 32], [],
      [(353, []), (353, []), (0, [])]),
     ([9, 32, 44], [],
      [(353, []), (353, []), (354, []), (0, [])]),
     ([9, 13, 32, 33, 37, 39, 126], [(42, 43), (45, 46), (48, 57), (65, 90), (95, 122)],
      [(354, []), (355, []), (354, []), (349, [0]), (349, [0]), (349, [0]), (349, [0]),
      (349, [0]), (349, [0]), (349, [0]), (349, [0]), (349, [0]), (0, [])]),
     ([10], [],
      [(356, []), (0, [])]),
     ([9, 32], [],
      [(357, []), (357, []), (0, [])]),
     ([9, 32, 33, 37, 39, 126], [(42, 43), (45, 46), (48, 57), (65, 90), (95, 122)],
      [(357, []), (357, []), (349, [0]), (349, [0]), (349, [0]), (349, [0]), (349, [0]),
      (349, [0]), (349, [0]), (349, [0]), (349, [0]), (0, [])]),
     ([10], [],
      [(359, []), (0, [])]),
     ([9, 13, 32, 33, 37, 39, 67, 72, 79, 83, 85, 99, 104, 111, 115, 117, 126], [(42, 43), (45, 46), (48, 57), (65, 90), (95, 122)],
      [(353, []), (16, [5]), (353, []), (17, [5, 1]), (17, [5, 1]), (17, [5, 1]), (23, [5, 1]),
      (49, [5, 1]), (252, [5, 1]), (264, [5, 1]), (360, [5, 1]), (23, [5, 1]), (49, [5, 1]),
      (252, [5, 1]), (264, [5, 1]), (360, [5, 1]), (17, [5, 1]), (17, [5, 1]), (17, [5, 1]),
      (17, [5, 1]), (17, [5, 1]), (17, [5, 1]), (0, [])]),
     ([9, 32, 33, 37, 39, 58, 80, 112, 126], [(42, 43), (45, 46), (48, 57), (65, 90), (95, 122)],
      [(18, [2]), (18, [2]), (17, []), (17, []), (17, []), (19, [2]), (361, []), (361, []),
      (17, []), (17, []), (17, []), (17, []), (17, []), (17, []), (0, [])])]"

lemma ws_check_12:
  "rows_check (t0_trans ws_tables) 2614 2143 ws_key_offsets_12 ws_index_offsets_12
     ws_single_lengths_12 ws_range_lengths_12 ws_trans_keys_12 ws_indicies_12 ws_rows_12"
  by (simp only: ws_key_offsets_12_def ws_index_offsets_12_def ws_single_lengths_12_def
    ws_range_lengths_12_def ws_trans_keys_12_def ws_indicies_12_def ws_rows_12_def ws_trans rows_simps)

definition ws_rows_13 :: "(int \<times> int list) t0_row list" where
  "ws_rows_13 =
    [([9, 32, 33, 37, 39, 58, 71, 103, 126], [(42, 43), (45, 46), (48, 57), (65, 90), (95, 122)],
      [(18, [2]), (18, [2]), (17, []), (17, []), (17, []), (19, [2]), (362, []), (362, []),
      (17, []), (17, []), (17, []), (17, []), (17, []), (17, []), (0, [])]),
     ([9, 32, 33, 37, 39, 58, 82, 114, 126], [(42, 43), (45, 46), (48, 57), (65, 90), (95, 122)],
      [(18, [2]), (18, [2]), (17, []), (17, []), (17, []), (19, [2]), (363, []), (363, []),
      (17, []), (17, []), (17, []), (17, []), (17, []), (17, []), (0, [])]),
     ([9, 32, 33, 37, 39, 58, 65, 97, 126], [(42, 43), (45, 46), (48, 57), (66, 90), (95, 122)],
      [(18, [2]), (18, [2]), (17, []), (17, []), (17, []), (19, [2]), (364, []), (364, []),
      (17, []), (17, []), (17, []), (17, []), (17, []), (17, []), (0, [])]),
     ([9, 32, 33, 37, 39, 58, 68, 100, 126], [(42, 43), (45, 46), (48, 57), (65, 90), (95, 122)],
      [(18, [2]), (18, [2]), (17, []), (17, []), (17, []), (19, [2]), (365, []), (365, []),
      (17, []), (17, []), (17, []), (17, []), (17, []), (17, []), (0, [])]),
     ([9, 32, 33, 37, 39, 58, 69, 101, 126], [(42, 43), (45, 46), (48, 57), (65, 90), (95, 122)],
      [(18, [2]), (18, [2]), (17, []), (17, []), (17, []), (19, [2]), (366, []), (366, []),
      (17, []), (17, []), (17, []), (17, []), (17, []), (17, []), (0, [])]),
     ([9, 32, 33, 37, 39, 58, 126], [(42, 43), (45, 46), (48, 57), (65, 90), (95, 122)],
      [(367, [2]), (367, [2]), (17, []), (17, []), (17, []), (368, [2]), (17, []), (17, []),
      (17, []), (17, []), (17, []), (17, []), (0, [])]),
     ([9, 32, 58], [],
      [(367, []), (367, []), (368, []), (0, [])]),
     ([9, 13, 32, 33, 37, 39, 126], [(42, 43), (45, 46), (48, 57), (65, 90), (95, 122)],
      [(368, []), (369, []), (368, []), (372, [3, 0]), (372, [3, 0]), (372, [3, 0]),
      (372, [3, 0]), (372, [3, 0]), (372, [3, 0]), (372, [3, 0]), (372, [3, 0]), (372, [3, 0]),
      (0, [])]),
     ([10], [],
      [(370, []), (0, [])]),
     ([9, 32], [],
      [(371, []), (371, []), (0, [])]),
     ([9, 32, 33, 37, 39, 126], [(42, 43), (45, 46), (48, 57), (65, 90), (95, 122)],
      [(371, []), (371, []), (372, [3, 0]), (372, [3, 0]), (372, [3, 0]), (372, [3, 0]),
      (372, [3, 0]), (372, [3, 0]), (372, [3, 0]), (372, [3, 0]), (372, [3, 0]), (0, [])]),
     ([13, 33, 37, 39, 126], [(42, 43), (45, 46), (48, 57), (65, 90), (95, 122)],
      [(14, [22, 4]), (372, []), (372, []), (372, []), (372, []), (372, []), (372, []), (372, []),
      (372, []), (372, []), (0, [])]),
     ([9, 32, 33, 37, 39, 58, 69, 101, 126], [(42, 43), (45, 46), (48, 57), (65, 90), (95, 122)],
      [(18, [2]), (18, [2]), (17, []), (17, []), (17, []), (19, [2]), (374, []), (374, []),
      (17, []), (17, []), (17, []), (17, []), (17, []), (17, []), (0, [])]),
     ([9, 32, 33, 37, 39, 58, 82, 114, 126], [(42, 43), (45, 46), (48, 57), (65, 90), (95, 122)],
      [(18, [2]), (18, [2]), (17, []), (17, []), (17, []), (19, [2]), (375, []), (375, []),
      (17, []), (17, []), (17, []), (17, []), (17, []), (17, []), (0, [])]),
     ([9, 32, 33, 37, 39, 58, 83, 115, 126], [(42, 43), (45, 46), (48, 57), (65, 90), (95, 122)],
      [(18, [2]), (18, [2]), (17, []), (17, []), (17, []), (19, [2]), (376, []), (376, []),
      (17, []), (17, []), (17, []), (17, []), (17, []), (17, []), (0, [])]),
     ([9, 32, 33, 37, 39, 58, 73, 105, 126], [(42, 43), (45, 46), (48, 57), (65, 90), (95, 122)],
      [(18, [2]), (18, [2]), (17, []), (17, []), (17, []), (19, [2]), (377, []), (377, []),
      (17, []), (17, []), (17, []), (17, []), (17, []), (17, []), (0, [])]),
     ([9, 32, 33, 37, 39, 58, 79, 111, 126], [(42, 43), (45, 46), (48, 57), (65, 90), (95, 122)],
      [(18, [2]), (18, [2]), (17, []), (17, []), (17, []), (19, [2]), (378, []), (378, []),
      (17, []), (17, []), (17, []), (17, []), (17, []), (17, []), (0, [])]),
     ([9, 32, 33, 37, 39, 58, 78, 110, 126], [(42, 43), (45, 46), (48, 57), (65, 90), (95, 122)],
      [(18, [2]), (18, [2]), (17, []), (17, []), (17, []), (19, [2]), (379, []), (379, []),
      (17, []), (17, []), (17, []), (17, []), (17, []), (17, []), (0, [])]),
     ([9, 32, 33, 37, 39, 58, 126], [(42, 43), (45, 46), (48, 57), (65, 90), (95, 122)],
      [(380, [2]), (380, [2]), (17, []), (17, []), (17, []), (381, [2]), (17, []), (17, []),
      (17, []), (17, []), (17, []), (17, []), (0, [])]),
     ([9, 32, 58], [],
      [(380, []), (380, []), (381, []), (0, [])]),
     ([9, 13, 32], [(48, 57)],
      [(381, []), (382, []), (381, []), (385, [3, 0]), (0, [])]),
     ([10], [],
      [(383, []), (0, [])]),
     ([9, 32], [],
      [(384, []), (384, []), (0, [])]),
     ([9, 32], [(48, 57)],
      [(384, []), (384, []), (385, [3, 0]), (0, [])]),
     ([13], [(48, 57)],
      [(14, [24, 4]), (386, []), (0, [])]),
     ([13], [(48, 57)],
      [(14, [24, 4]), (387, []), (0, [])]),
     ([13], [],
      [(14, [24, 4]), (0, [])]),
     ([9, 32, 33, 37, 39, 58, 69, 101, 126], [(42, 43), (45, 46), (48, 57), (65, 90), (95, 122)],
      [(18, [2]), (18, [2]), (17, []), (17, []), (17, []), (19, [2]), (389, []), (389, []),
      (17, []), (17, []), (17, []), (17, []), (17, []), (17, []), (0, [])]),
     ([9, 32, 33, 37, 39, 58, 78, 110, 126], [(42, 43), (45, 46), (48, 57), (65, 90), (95, 122)],
      [(18, [2]), (18, [2]), (17, []), (17, []), (17, []), (19, [2]), (390, []), (390, []),
      (17, []), (17, []), (17, []), (17, []), (17, []), (17, []), (0, [])]),
     ([9, 32, 33, 37, 39, 58, 84, 116, 126], [(42, 43), (45, 46), (48, 57), (65, 90), (95, 122)],
      [(18, [2]), (18, [2]), (17, []), (17, []), (17, []), (19, [2]), (391, []), (391, []),
      (17, []), (17, []), (17, []), (17, []), (17, []), (17, []), (0, [])])]"

lemma ws_check_13:
  "rows_check (t0_trans ws_tables) 2925 2406 ws_key_offsets_13 ws_index_offsets_13
     ws_single_lengths_13 ws_range_lengths_13 ws_trans_keys_13 ws_indicies_13 ws_rows_13"
  by (simp only: ws_key_offsets_13_def ws_index_offsets_13_def ws_single_lengths_13_def
    ws_range_lengths_13_def ws_trans_keys_13_def ws_indicies_13_def ws_rows_13_def ws_trans rows_simps)

definition ws_rows_14 :: "(int \<times> int list) t0_row list" where
  "ws_rows_14 =
    [([9, 32, 33, 37, 39, 45, 46, 58, 126], [(42, 43), (48, 57), (65, 90), (95, 122)],
      [(18, [2]), (18, [2]), (17, []), (17, []), (17, []), (392, []), (17, []), (19, [2]),
      (17, []), (17, []), (17, []), (17, []), (17, []), (0, [])]),
     ([9, 32, 33, 37, 39, 58, 76, 108, 126], [(42, 43), (45, 46), (48, 57), (65, 90), (95, 122)],
      [(18, [2]), (18, [2]), (17, []), (17, []), (17, []), (19, [2]), (393, []), (393, []),
      (17, []), (17, []), (17, []), (17, []), (17, []), (17, []), (0, [])]),
     ([9, 32, 33, 37, 39, 58, 69, 101, 126], [(42, 43), (45, 46), (48, 57), (65, 90), (95, 122)],
      [(18, [2]), (18, [2]), (17, []), (17, []), (17, []), (19, [2]), (394, []), (394, []),
      (17, []), (17, []), (17, []), (17, []), (17, []), (17, []), (0, [])]),
     ([9, 32, 33, 37, 39, 58, 78, 110, 126], [(42, 43), (45, 46), (48, 57), (65, 90), (95, 122)],
      [(18, [2]), (18, [2]), (17, []), (17, []), (17, []), (19, [2]), (395, []), (395, []),
      (17, []), (17, []), (17, []), (17, []), (17, []), (17, []), (0, [])]),
     ([9, 32, 33, 37, 39, 58, 71, 103, 126], [(42, 43), (45, 46), (48, 57), (65, 90), (95, 122)],
      [(18, [2]), (18, [2]), (17, []), (17, []), (17, []), (19, [2]), (396, []), (396, []),
      (17, []), (17, []), (17, []), (17, []), (17, []), (17, []), (0, [])]),
     ([9, 32, 33, 37, 39, 58, 84, 116, 126], [(42, 43), (45, 46), (48, 57), (65, 90), (95, 122)],
      [(18, [2]), (18, [2]), (17, []), (17, []), (17, []), (19, [2]), (397, []), (397, []),
      (17, []), (17, []), (17, []), (17, []), (17, []), (17, []), (0, [])]),
     ([9, 32, 33, 37, 39, 58, 72, 104, 126], [(42, 43), (45, 46), (48, 57), (65, 90), (95, 122)],
      [(18, [2]), (18, [2]), (17, []), (17, []), (17, []), (19, [2]), (398, []), (398, []),
      (17, []), (17, []), (17, []), (17, []), (17, []), (17, []), (0, [])]),
     ([9, 32, 33, 37, 39, 58, 126], [(42, 43), (45, 46), (48, 57), (65, 90), (95, 122)],
      [(399, [2]), (399, [2]), (17, []), (17, []), (17, []), (400, [2]), (17, []), (17, []),
      (17, []), (17, []), (17, []), (17, []), (0, [])]),
     ([9, 32, 58], [],
      [(399, []), (399, []), (400, []), (0, [])]),
     ([9, 13, 32], [(48, 57)],
      [(400, []), (401, []), (400, []), (404, [3, 0]), (0, [])]),
     ([10], [],
      [(402, []), (0, [])]),
     ([9, 32], [],
      [(403, []), (403, []), (0, [])]),
     ([9, 32], [(48, 57)],
      [(403, []), (403, []), (404, [3, 0]), (0, [])]),
     ([13], [(48, 57)],
      [(14, [20, 4]), (405, []), (0, [])]),
     ([13], [(48, 57)],
      [(14, [20, 4]), (406, []), (0, [])]),
     ([13], [(48, 57)],
      [(14, [20, 4]), (407, []), (0, [])]),
     ([13], [(48, 57)],
      [(14, [20, 4]), (408, []), (0, [])]),
     ([13], [(48, 57)],
      [(14, [20, 4]), (409, []), (0, [])]),
     ([13], [(48, 57)],
      [(14, [20, 4]), (410, []), (0, [])]),
     ([13], [(48, 57)],
      [(14, [20, 4]), (411, []), (0, [])]),
     ([13], [(48, 57)],
      [(14, [20, 4]), (412, []), (0, [])]),
     ([13], [],
      [(14, [20, 4]), (0, [])]),
     ([10], [],
      [(414, []), (0, [])]),
     ([9, 13, 32, 33, 37, 39, 67, 72, 79, 83, 85, 99, 104, 111, 115, 117, 126], [(42, 43), (45, 46), (48, 57), (65, 90), (95, 122)],
      [(415, []), (16, [5]), (415, []), (17, [5, 1]), (17, [5, 1]), (17, [5, 1]), (23, [5, 1]),
      (49, [5, 1]), (252, [5, 1]), (264, [5, 1]), (360, [5, 1]), (23, [5, 1]), (49, [5, 1]),
      (252, [5, 1]), (264, [5, 1]), (360, [5, 1]), (17, [5, 1]), (17, [5, 1]), (17, [5, 1]),
      (17, [5, 1]), (17, [5, 1]), (17, [5, 1]), (0, [])]),
     ([9, 13, 32, 127], [(0, 31)],
      [(415, [3]), (21, [3, 4]), (415, [3]), (0, []), (0, []), (20, [3])]),
     ([13], [],
      [(14, [17]), (0, [])]),
     ([46], [],
      [(12, []), (0, [])]),
     ([32, 35, 37, 127], [(0, 31)],
      [(5, [15, 16, 11]), (0, []), (420, [15]), (0, []), (0, []), (419, [15])]),
     ([32, 35, 37, 127], [(0, 31)],
      [(5, [16, 11]), (0, []), (420, []), (0, []), (0, []), (419, [])]),
     ([], [(48, 57), (65, 70), (97, 102)],
      [(421, []), (421, []), (421, []), (0, [])])]"

lemma ws_check_14:
  "rows_check (t0_trans ws_tables) 3301 2713 ws_key_offsets_14 ws_index_offsets_14
     ws_single_lengths_14 ws_range_lengths_14 ws_trans_keys_14 ws_indicies_14 ws_rows_14"
  by (simp only: ws_key_offsets_14_def ws_index_offsets_14_def ws_single_lengths_14_def
    ws_range_lengths_14_def ws_trans_keys_14_def ws_indicies_14_def ws_rows_14_def ws_trans rows_simps)

definition ws_rows_15 :: "(int \<times> int list) t0_row list" where
  "ws_rows_15 =
    [([], [(48, 57), (65, 70), (97, 102)],
      [(419, []), (419, []), (419, []), (0, [])]),
     ([], [(48, 57), (65, 70), (97, 102)],
      [(423, []), (423, []), (423, []), (0, [])]),
     ([], [(48, 57), (65, 70), (97, 102)],
      [(4, []), (4, []), (4, []), (0, [])]),
     ([32, 35, 37, 127], [(0, 31)],
      [(5, [13, 14, 11]), (418, [13, 14]), (426, [13]), (0, []), (0, []), (425, [13])]),
     ([32, 35, 37, 127], [(0, 31)],
      [(5, [14, 11]), (418, [14]), (426, []), (0, []), (0, []), (425, [])]),
     ([], [(48, 57), (65, 70), (97, 102)],
      [(427, []), (427, []), (427, []), (0, [])]),
     ([], [(48, 57), (65, 70), (97, 102)],
      [(425, []), (425, []), (425, []), (0, [])]),
     ([32, 33, 37, 39, 69, 126], [(42, 43), (45, 46), (48, 57), (65, 90), (95, 122)],
      [(3, [9, 10]), (2, []), (2, []), (2, []), (429, []), (2, []), (2, []), (2, []), (2, []),
      (2, []), (2, []), (0, [])]),
     ([32, 33, 37, 39, 84, 126], [(42, 43), (45, 46), (48, 57), (65, 90), (95, 122)],
      [(3, [9, 10]), (2, []), (2, []), (2, []), (430, []), (2, []), (2, []), (2, []), (2, []),
      (2, []), (2, []), (0, [])]),
     ([32, 33, 37, 39, 126], [(42, 43), (45, 46), (48, 57), (65, 90), (95, 122)],
      [(3, [6, 9, 10]), (2, []), (2, []), (2, []), (2, []), (2, []), (2, []), (2, []), (2, []),
      (2, []), (0, [])]),
     ([32, 33, 37, 39, 80, 126], [(42, 43), (45, 46), (48, 57), (65, 90), (95, 122)],
      [(3, [9, 10]), (2, []), (2, []), (2, []), (432, []), (2, []), (2, []), (2, []), (2, []),
      (2, []), (2, []), (0, [])]),
     ([32, 33, 37, 39, 84, 126], [(42, 43), (45, 46), (48, 57), (65, 90), (95, 122)],
      [(3, [9, 10]), (2, []), (2, []), (2, []), (433, []), (2, []), (2, []), (2, []), (2, []),
      (2, []), (2, []), (0, [])]),
     ([32, 33, 37, 39, 73, 126], [(42, 43), (45, 46), (48, 57), (65, 90), (95, 122)],
      [(3, [9, 10]), (2, []), (2, []), (2, []), (434, []), (2, []), (2, []), (2, []), (2, []),
      (2, []), (2, []), (0, [])]),
     ([32, 33, 37, 39, 79, 126], [(42, 43), (45, 46), (48, 57), (65, 90), (95, 122)],
      [(3, [9, 10]), (2, []), (2, []), (2, []), (435, []), (2, []), (2, []), (2, []), (2, []),
      (2, []), (2, []), (0, [])]),
     ([32, 33, 37, 39, 78, 126], [(42, 43), (45, 46), (48, 57), (65, 90), (95, 122)],
      [(3, [9, 10]), (2, []), (2, []), (2, []), (436, []), (2, []), (2, []), (2, []), (2, []),
      (2, []), (2, []), (0, [])]),
     ([32, 33, 37, 39, 83, 126], [(42, 43), (45, 46), (48, 57), (65, 90), (95, 122)],
      [(3, [9, 10]), (2, []), (2, []), (2, []), (437, []), (2, []), (2, []), (2, []), (2, []),
      (2, []), (2, []), (0, [])]),
     ([32, 33, 37, 39, 126], [(42, 43), (45, 46), (48, 57), (65, 90), (95, 122)],
      [(3, [8, 9, 10]), (2, []), (2, []), (2, []), (2, []), (2, []), (2, []), (2, []), (2, []),
      (2, []), (0, [])]),
     ([32, 33, 37, 39, 79, 126], [(42, 43), (45, 46), (48, 57), (65, 90), (95, 122)],
      [(3, [9, 10]), (2, []), (2, []), (2, []), (439, []), (2, []), (2, []), (2, []), (2, []),
      (2, []), (2, []), (0, [])]),
     ([32, 33, 37, 39, 83, 126], [(42, 43), (45, 46), (48, 57), (65, 90), (95, 122)],
      [(3, [9, 10]), (2, []), (2, []), (2, []), (440, []), (2, []), (2, []), (2, []), (2, []),
      (2, []), (2, []), (0, [])]),
     ([32, 33, 37, 39, 84, 126], [(42, 43), (45, 46), (48, 57), (65, 90), (95, 122)],
      [(3, [9, 10]), (2, []), (2, []), (2, []), (441, []), (2, []), (2, []), (2, []), (2, []),
      (2, []), (2, []), (0, [])]),
     ([32, 33, 37, 39, 126], [(42, 43), (45, 46), (48, 57), (65, 90), (95, 122)],
      [(3, [7, 9, 10]), (2, []), (2, []), (2, []), (2, []), (2, []), (2, []), (2, []), (2, []),
      (2, []), (0, [])]),
     ([], [],
      [(0, [])])]"

lemma ws_check_15:
  "rows_check (t0_trans ws_tables) 3543 2925 ws_key_offsets_15 ws_index_offsets_15
     ws_single_lengths_15 ws_range_lengths_15 ws_trans_keys_15 ws_indicies_15 ws_rows_15"
  by (simp only: ws_key_offsets_15_def ws_index_offsets_15_def ws_single_lengths_15_def
    ws_range_lengths_15_def ws_trans_keys_15_def ws_indicies_15_def ws_rows_15_def ws_trans rows_simps)

text \<open>The pieces in their arrays.\<close>

lemma ws_row_lengths:
  "length ws_rows_1 = 30"
  "length ws_rows_2 = 30"
  "length ws_rows_3 = 30"
  "length ws_rows_4 = 30"
  "length ws_rows_5 = 30"
  "length ws_rows_6 = 30"
  "length ws_rows_7 = 30"
  "length ws_rows_8 = 30"
  "length ws_rows_9 = 30"
  "length ws_rows_10 = 30"
  "length ws_rows_11 = 30"
  "length ws_rows_12 = 30"
  "length ws_rows_13 = 30"
  "length ws_rows_14 = 30"
  "length ws_rows_15 = 22"
  by (simp_all add: ws_rows_1_def
    ws_rows_2_def
    ws_rows_3_def
    ws_rows_4_def
    ws_rows_5_def
    ws_rows_6_def
    ws_rows_7_def
    ws_rows_8_def
    ws_rows_9_def
    ws_rows_10_def
    ws_rows_11_def
    ws_rows_12_def
    ws_rows_13_def
    ws_rows_14_def
    ws_rows_15_def)

lemmas ws_lengths = ws_key_offsets_lengths ws_trans_keys_lengths ws_single_lengths_lengths
  ws_range_lengths_lengths ws_index_offsets_lengths ws_indicies_lengths

lemmas ws_arrays = ws_tables_def ws_key_offsets_def ws_trans_keys_def ws_single_lengths_def
  ws_range_lengths_def ws_index_offsets_def ws_indicies_def

lemma ws_block_1: "rows_from ws_tables 1 ws_rows_1"
  by (rule rows_check_from [OF ws_check_1]) (simp_all add: ws_arrays ws_lengths drop_Suc)

lemma ws_block_2: "rows_from ws_tables 31 ws_rows_2"
  by (rule rows_check_from [OF ws_check_2]) (simp_all add: ws_arrays ws_lengths)

lemma ws_block_3: "rows_from ws_tables 61 ws_rows_3"
  by (rule rows_check_from [OF ws_check_3]) (simp_all add: ws_arrays ws_lengths)

lemma ws_block_4: "rows_from ws_tables 91 ws_rows_4"
  by (rule rows_check_from [OF ws_check_4]) (simp_all add: ws_arrays ws_lengths)

lemma ws_block_5: "rows_from ws_tables 121 ws_rows_5"
  by (rule rows_check_from [OF ws_check_5]) (simp_all add: ws_arrays ws_lengths)

lemma ws_block_6: "rows_from ws_tables 151 ws_rows_6"
  by (rule rows_check_from [OF ws_check_6]) (simp_all add: ws_arrays ws_lengths)

lemma ws_block_7: "rows_from ws_tables 181 ws_rows_7"
  by (rule rows_check_from [OF ws_check_7]) (simp_all add: ws_arrays ws_lengths)

lemma ws_block_8: "rows_from ws_tables 211 ws_rows_8"
  by (rule rows_check_from [OF ws_check_8]) (simp_all add: ws_arrays ws_lengths)

lemma ws_block_9: "rows_from ws_tables 241 ws_rows_9"
  by (rule rows_check_from [OF ws_check_9]) (simp_all add: ws_arrays ws_lengths)

lemma ws_block_10: "rows_from ws_tables 271 ws_rows_10"
  by (rule rows_check_from [OF ws_check_10]) (simp_all add: ws_arrays ws_lengths)

lemma ws_block_11: "rows_from ws_tables 301 ws_rows_11"
  by (rule rows_check_from [OF ws_check_11]) (simp_all add: ws_arrays ws_lengths)

lemma ws_block_12: "rows_from ws_tables 331 ws_rows_12"
  by (rule rows_check_from [OF ws_check_12]) (simp_all add: ws_arrays ws_lengths)

lemma ws_block_13: "rows_from ws_tables 361 ws_rows_13"
  by (rule rows_check_from [OF ws_check_13]) (simp_all add: ws_arrays ws_lengths)

lemma ws_block_14: "rows_from ws_tables 391 ws_rows_14"
  by (rule rows_check_from [OF ws_check_14]) (simp_all add: ws_arrays ws_lengths)

lemma ws_block_15: "rows_from ws_tables 421 ws_rows_15"
  by (rule rows_check_from [OF ws_check_15]) (simp_all add: ws_arrays ws_lengths)

definition ws_rows :: "(int \<times> int list) t0_row list" where
  "ws_rows =
     ws_rows_1 @ ws_rows_2 @ ws_rows_3 @ ws_rows_4 @ ws_rows_5 @ ws_rows_6 @
     ws_rows_7 @ ws_rows_8 @ ws_rows_9 @ ws_rows_10 @ ws_rows_11 @ ws_rows_12 @
     ws_rows_13 @ ws_rows_14 @ ws_rows_15"

lemmas ws_blocks = ws_block_1 ws_block_2 ws_block_3 ws_block_4 ws_block_5 ws_block_6 ws_block_7 ws_block_8
  ws_block_9 ws_block_10 ws_block_11 ws_block_12 ws_block_13 ws_block_14 ws_block_15

lemma ws_rows_from: "rows_from ws_tables 1 ws_rows"
  unfolding ws_rows_def
  by ((rule rows_from_append, rule ws_blocks, simp add: ws_row_lengths)+, rule ws_block_15)

lemma ws_rows_length: "length ws_rows = 442"
  by (simp add: ws_rows_def ws_row_lengths)

end
