(* ===== verification/Ruby_Heap.thy ===== *)
theory Ruby_Heap
  imports Ruby_Value "HOL-Library.Monad_Syntax"
begin

text \<open>
  The Ruby objects the parsers build: instances with instance variables, Hashes and Arrays that
  are changed after they are made, so they live in a store and are shared by reference.  A
  \<open>VALUE\<close> is an immediate or a reference; Strings are never changed once made, and are kept as
  values.  A function of the Ruby API that raises, or is called on a value it is undefined for,
  is \<open>None\<close>.
\<close>

datatype rval = Imm ruby_value | Ref nat

datatype rbody =
    Instance
  | HashB "(ruby_value \<times> rval) list"
  | AryB "rval list"

record robj =
  klass :: string
  ivars :: "string \<rightharpoonup> rval"
  body :: rbody

type_synonym heap = "robj list"

abbreviation nil :: rval where "nil \<equiv> Imm Qnil"

definition new_robj :: "string \<Rightarrow> rbody \<Rightarrow> robj" where
  "new_robj c b = \<lparr>klass = c, ivars = Map.empty, body = b\<rparr>"

text \<open>\<open>rb_obj_alloc\<close>, \<open>rb_hash_new\<close>, \<open>rb_ary_new\<close> and \<open>rb_ary_new3(1, v)\<close>: a fresh address.\<close>

definition rb_new :: "robj \<Rightarrow> heap \<Rightarrow> heap \<times> rval" where
  "rb_new ob h = (h @ [ob], Ref (length h))"

abbreviation rb_obj_alloc :: "string \<Rightarrow> heap \<Rightarrow> heap \<times> rval" where
  "rb_obj_alloc c \<equiv> rb_new (new_robj c Instance)"

abbreviation rb_hash_new :: "heap \<Rightarrow> heap \<times> rval" where
  "rb_hash_new \<equiv> rb_new (new_robj ''Hash'' (HashB []))"

abbreviation rb_ary_new :: "rval list \<Rightarrow> heap \<Rightarrow> heap \<times> rval" where
  "rb_ary_new vs \<equiv> rb_new (new_robj ''Array'' (AryB vs))"

definition deref :: "rval \<Rightarrow> heap \<Rightarrow> robj option" where
  "deref v h = (case v of Ref a \<Rightarrow> if a < length h then Some (h ! a) else None | Imm x \<Rightarrow> None)"

definition store :: "rval \<Rightarrow> robj \<Rightarrow> heap \<Rightarrow> heap" where
  "store v ob h = (case v of Ref a \<Rightarrow> h[a := ob] | Imm x \<Rightarrow> h)"

definition rb_ivar_get :: "rval \<Rightarrow> string \<Rightarrow> heap \<Rightarrow> rval option" where
  "rb_ivar_get v x h = do {
     ob \<leftarrow> deref v h;
     Some (case ivars ob x of None \<Rightarrow> nil | Some w \<Rightarrow> w)
   }"

definition rb_ivar_set :: "rval \<Rightarrow> string \<Rightarrow> rval \<Rightarrow> heap \<Rightarrow> heap option" where
  "rb_ivar_set v x w h = do {
     ob \<leftarrow> deref v h;
     Some (store v (ob\<lparr>ivars := (ivars ob)(x \<mapsto> w)\<rparr>) h)
   }"

text \<open>A Hash keeps the order in which its keys were first stored.\<close>

fun assoc_set :: "'k \<Rightarrow> 'v \<Rightarrow> ('k \<times> 'v) list \<Rightarrow> ('k \<times> 'v) list" where
  "assoc_set k v [] = [(k, v)]"
| "assoc_set k v ((k', v') # kvs) =
     (if k' = k then (k', v) # kvs else (k', v') # assoc_set k v kvs)"

definition rb_hash_lookup :: "rval \<Rightarrow> ruby_value \<Rightarrow> heap \<Rightarrow> rval option" where
  "rb_hash_lookup v k h = do {
     ob \<leftarrow> deref v h;
     (case body ob of
        HashB kvs \<Rightarrow> Some (case map_of kvs k of None \<Rightarrow> nil | Some w \<Rightarrow> w)
      | _ \<Rightarrow> None)
   }"

definition rb_hash_aset :: "rval \<Rightarrow> ruby_value \<Rightarrow> rval \<Rightarrow> heap \<Rightarrow> heap option" where
  "rb_hash_aset v k w h = do {
     ob \<leftarrow> deref v h;
     (case body ob of
        HashB kvs \<Rightarrow> Some (store v (ob\<lparr>body := HashB (assoc_set k w kvs)\<rparr>) h)
      | _ \<Rightarrow> None)
   }"

definition rb_ary_push :: "rval \<Rightarrow> rval \<Rightarrow> heap \<Rightarrow> heap option" where
  "rb_ary_push v w h = do {
     ob \<leftarrow> deref v h;
     (case body ob of
        AryB vs \<Rightarrow> Some (store v (ob\<lparr>body := AryB (vs @ [w])\<rparr>) h)
      | _ \<Rightarrow> None)
   }"

text \<open>The values of the Array a value refers to; \<open>TYPE(v) == T_ARRAY\<close> asks whether there are any.\<close>

definition ary_of :: "rval \<Rightarrow> heap \<Rightarrow> rval list option" where
  "ary_of v h = do { ob \<leftarrow> deref v h; (case body ob of AryB vs \<Rightarrow> Some vs | _ \<Rightarrow> None) }"

definition is_T_ARRAY :: "rval \<Rightarrow> heap \<Rightarrow> bool" where
  "is_T_ARRAY v h \<longleftrightarrow> ary_of v h \<noteq> None"

definition hash_of :: "rval \<Rightarrow> heap \<Rightarrow> (ruby_value \<times> rval) list option" where
  "hash_of v h = do { ob \<leftarrow> deref v h; (case body ob of HashB kvs \<Rightarrow> Some kvs | _ \<Rightarrow> None) }"

text \<open>
  \<open>RB_STR_UTF8_NEW(at, length)\<close> and \<open>rb_str_new(at, length)\<close>: \<open>at\<close> is what follows the pointer
  in its buffer; more characters than are there are a read outside it.
\<close>

definition chars :: "string \<Rightarrow> nat \<Rightarrow> string option" where
  "chars at n = (if n \<le> length at then Some (take n at) else None)"

lemma ary_of_Some: "ary_of v h = Some vs \<longleftrightarrow> (\<exists>ob. deref v h = Some ob \<and> body ob = AryB vs)"
  by (cases "deref v h") (auto simp: ary_of_def split: rbody.splits)

lemma hash_of_Some: "hash_of v h = Some kvs \<longleftrightarrow> (\<exists>ob. deref v h = Some ob \<and> body ob = HashB kvs)"
  by (cases "deref v h") (auto simp: hash_of_def split: rbody.splits)

subsection \<open>Reading after writing\<close>

lemma deref_Imm [simp]: "deref (Imm v) h = None"
  by (simp add: deref_def)

lemma deref_Ref: "deref (Ref a) h = (if a < length h then Some (h ! a) else None)"
  by (simp add: deref_def)

lemma deref_SomeD: "deref v h = Some ob \<Longrightarrow> \<exists>a. v = Ref a \<and> a < length h \<and> h ! a = ob"
  by (cases v) (auto simp: deref_def split: if_splits)

lemma length_store [simp]: "length (store v ob h) = length h"
  by (cases v) (simp_all add: store_def)

lemma deref_store:
  "deref w (store v ob h) = (if w = v \<and> deref v h \<noteq> None then Some ob else deref w h)"
  by (cases v; cases w) (auto simp: store_def deref_def nth_list_update)

lemma deref_append: "deref v (h @ h') = (if deref v h = None then deref v (h @ h') else deref v h)"
  by (cases v) (auto simp: deref_def nth_append)

lemma deref_new_old [simp]: "deref v h = Some ob \<Longrightarrow> deref v (h @ h') = Some ob"
  by (cases v) (auto simp: deref_def nth_append split: if_splits)

lemma deref_new [simp]: "deref (Ref (length h)) (h @ [ob]) = Some ob"
  by (simp add: deref_def)

lemma assoc_set_map_of: "map_of (assoc_set k v kvs) = (map_of kvs)(k \<mapsto> v)"
  by (induction k v kvs rule: assoc_set.induct) (auto simp: fun_eq_iff)

lemma assoc_set_keys:
  "map fst (assoc_set k v kvs) = map fst kvs @ (if k \<in> fst ` set kvs then [] else [k])"
  by (induction k v kvs rule: assoc_set.induct) (auto simp: image_iff)

lemma assoc_set_new: "map_of kvs k = None \<Longrightarrow> assoc_set k v kvs = kvs @ [(k, v)]"
  by (induction k v kvs rule: assoc_set.induct) (auto split: if_splits)

lemma rb_ivar_set_length: "rb_ivar_set v x w h = Some h' \<Longrightarrow> length h' = length h"
  by (auto simp: rb_ivar_set_def bind_eq_Some_conv)

lemma rb_ivar_set_total: "deref v h = Some ob \<Longrightarrow> \<exists>h'. rb_ivar_set v x w h = Some h'"
  by (simp add: rb_ivar_set_def)

lemma rb_ivar_get_set:
  assumes "rb_ivar_set v x w h = Some h'"
  shows "rb_ivar_get u y h' = (if u = v \<and> y = x then Some w else rb_ivar_get u y h)"
proof -
  obtain ob where ob: "deref v h = Some ob" "h' = store v (ob\<lparr>ivars := (ivars ob)(x \<mapsto> w)\<rparr>) h"
    using assms by (auto simp: rb_ivar_set_def bind_eq_Some_conv)
  then show ?thesis by (auto simp: rb_ivar_get_def deref_store)
qed

lemma rb_ivar_set_ary_of: "rb_ivar_set v x w h = Some h' \<Longrightarrow> ary_of u h' = ary_of u h"
  by (auto simp: rb_ivar_set_def ary_of_def deref_store bind_eq_Some_conv)

lemma rb_ivar_set_hash_of: "rb_ivar_set v x w h = Some h' \<Longrightarrow> hash_of u h' = hash_of u h"
  by (auto simp: rb_ivar_set_def hash_of_def deref_store bind_eq_Some_conv)

subsection \<open>What an operation leaves alone\<close>

lemma deref_new_eq: "deref u (h @ [ob]) = (if u = Ref (length h) then Some ob else deref u h)"
  by (cases u) (auto simp: deref_def nth_append)

text \<open>Immediates and references that do not dangle.\<close>

definition allocated :: "rval \<Rightarrow> heap \<Rightarrow> bool" where
  "allocated v h \<longleftrightarrow> (case v of Ref a \<Rightarrow> a < length h | Imm x \<Rightarrow> True)"

lemma allocated_length: "length h' = length h \<Longrightarrow> allocated v h' = allocated v h"
  by (simp add: allocated_def split: rval.split)

lemma allocated_store [simp]: "allocated u (store v ob h) = allocated u h"
  by (rule allocated_length) simp

lemma allocated_Imm [simp]: "allocated (Imm x) h"
  by (simp add: allocated_def)

lemma ary_allocated: "ary_of r h = Some vs \<Longrightarrow> allocated r h"
  by (auto simp: ary_of_Some allocated_def split: rval.split dest: deref_SomeD)

lemma ary_new:
  assumes "rb_ary_new vs h = (h', r)"
  shows "ary_of u h' = (if u = r then Some vs else ary_of u h)" "hash_of u h' = hash_of u h"
    "rb_ivar_get u x h' = (if u = r then Some nil else rb_ivar_get u x h)"
    "ary_of r h = None" "hash_of r h = None" "rb_ivar_get r x h = None" "\<not> allocated r h"
    "allocated u h' \<longleftrightarrow> u = r \<or> allocated u h"
  using assms
  by (auto simp: rb_new_def ary_of_def hash_of_def rb_ivar_get_def deref_new_eq new_robj_def deref_Ref
      allocated_def split: rval.splits)

lemma ary_push:
  assumes "ary_of r h = Some vs"
  obtains h' where "rb_ary_push r w h = Some h'"
    "\<And>u. ary_of u h' = (if u = r then Some (vs @ [w]) else ary_of u h)"
    "\<And>u. hash_of u h' = hash_of u h" "\<And>u x. rb_ivar_get u x h' = rb_ivar_get u x h"
    "\<And>u. allocated u h' = allocated u h"
proof -
  obtain ob where ob: "deref r h = Some ob" "body ob = AryB vs"
    using assms by (auto simp: ary_of_Some)
  show thesis
    by (rule that [of "store r (ob\<lparr>body := AryB (vs @ [w])\<rparr>) h"])
      (use ob in \<open>auto simp: rb_ary_push_def ary_of_def hash_of_def rb_ivar_get_def deref_store
        allocated_store\<close>)
qed

lemma hash_aset:
  assumes "hash_of v h = Some kvs"
  obtains h' where "rb_hash_aset v k w h = Some h'"
    "\<And>u. hash_of u h' = (if u = v then Some (assoc_set k w kvs) else hash_of u h)"
    "\<And>u. ary_of u h' = ary_of u h" "\<And>u x. rb_ivar_get u x h' = rb_ivar_get u x h"
    "\<And>u. allocated u h' = allocated u h"
proof -
  obtain ob where ob: "deref v h = Some ob" "body ob = HashB kvs"
    using assms by (auto simp: hash_of_Some)
  show thesis
    by (rule that [of "store v (ob\<lparr>body := HashB (assoc_set k w kvs)\<rparr>) h"])
      (use ob in \<open>auto simp: rb_hash_aset_def ary_of_def hash_of_def rb_ivar_get_def deref_store
        allocated_store\<close>)
qed

lemma hash_lookup:
  "hash_of v h = Some kvs \<Longrightarrow>
   rb_hash_lookup v k h = Some (case map_of kvs k of None \<Rightarrow> nil | Some w \<Rightarrow> w)"
  by (auto simp: hash_of_def rb_hash_lookup_def bind_eq_Some_conv split: rbody.splits)

lemma ivar_set:
  assumes "rb_ivar_get v y h \<noteq> None"
  obtains h' where "rb_ivar_set v x w h = Some h'"
    "\<And>u z. rb_ivar_get u z h' = (if u = v \<and> z = x then Some w else rb_ivar_get u z h)"
    "\<And>u. ary_of u h' = ary_of u h" "\<And>u. hash_of u h' = hash_of u h"
    "\<And>u. allocated u h' = allocated u h"
proof -
  obtain ob where "deref v h = Some ob" using assms by (auto simp: rb_ivar_get_def split: bind_splits)
  then obtain h' where h': "rb_ivar_set v x w h = Some h'" using rb_ivar_set_total by blast
  show thesis
    by (rule that [OF h'])
      (simp_all add: rb_ivar_get_set [OF h'] rb_ivar_set_ary_of [OF h'] rb_ivar_set_hash_of [OF h']
        allocated_length [OF rb_ivar_set_length [OF h']])
qed

lemma hash_of_ivar: "hash_of v h = Some kvs \<Longrightarrow> rb_ivar_get v x h \<noteq> None"
  by (auto simp: hash_of_def rb_ivar_get_def bind_eq_Some_conv)

lemma nil_no_ary [simp]: "ary_of nil h = None" "ary_of (Imm x) h = None"
  by (simp_all add: ary_of_def)

subsection \<open>A Hash of Arrays\<close>

text \<open>A list of keys with their values, in the order the keys came first.\<close>

fun mm_add :: "'k \<Rightarrow> 'v \<Rightarrow> ('k \<times> 'v list) list \<Rightarrow> ('k \<times> 'v list) list" where
  "mm_add k v [] = [(k, [v])]"
| "mm_add k v ((k', vs) # m) = (if k' = k then (k', vs @ [v]) # m else (k', vs) # mm_add k v m)"

lemma mm_add_values:
  "(case map_of (mm_add k v m) k' of None \<Rightarrow> [] | Some vs \<Rightarrow> vs) =
   (case map_of m k' of None \<Rightarrow> [] | Some vs \<Rightarrow> vs) @ (if k' = k then [v] else [])"
  by (induction k v m rule: mm_add.induct) auto

lemma mm_add_new: "k \<notin> fst ` set m \<Longrightarrow> mm_add k v m = m @ [(k, [v])]"
  by (induction k v m rule: mm_add.induct) auto

lemma mm_add_push:
  "map_of kvs k = Some r \<Longrightarrow> distinct (map snd kvs) \<Longrightarrow>
   map (\<lambda>(k', r'). (k', if r' = r then f r @ [v] else f r')) kvs = mm_add k v (map (\<lambda>(k, r). (k, f r)) kvs)"
proof (induction kvs)
  case (Cons x kvs)
  obtain k' r' where x: "x = (k', r')" by (cases x)
  show ?case
  proof (cases "k' = k")
    case True
    then have "r' = r" "r \<notin> snd ` set kvs" using Cons.prems x by auto
    then have "map (\<lambda>(k', r'). (k', if r' = r then f r @ [v] else f r')) kvs = map (\<lambda>(k, r). (k, f r)) kvs"
      by (intro map_cong) (auto simp: image_iff)
    then show ?thesis using True \<open>r' = r\<close> by (simp add: x)
  next
    case False
    then have k: "map_of kvs k = Some r" using Cons.prems x by auto
    then have "r \<in> snd ` set kvs" by (force dest: map_of_SomeD)
    then have "r' \<noteq> r" using Cons.prems x by auto
    then show ?thesis using Cons k False by (simp add: x)
  qed
qed simp

end
