(* ===== verification/Parser_Buffer.thy ===== *)
theory Parser_Buffer
  imports Ruby_Heap
begin

text \<open>
  What the two parsers of messages do with numbers in C: lengths of slices of the buffer,
  positions cut to an \<open>int\<close>, and 64-bit numbers made into Ruby's Integers.
\<close>

text \<open>\<open>LEN(AT, FPC)\<close>: a difference of unsigned 64-bit numbers.\<close>

definition LEN :: "nat \<Rightarrow> nat \<Rightarrow> nat" where
  "LEN at p = nat ((int p - int at) mod 2 ^ 64)"

text \<open>\<open>error_pos\<close> is an \<open>int\<close>, so the position is cut to 32 bits.\<close>

definition to_c_int :: "int \<Rightarrow> int" where
  "to_c_int i = (i + 2 ^ 31) mod 2 ^ 32 - 2 ^ 31"

text \<open>\<open>INT2FIX\<close> of an \<open>int\<close> is the number; \<open>LONG2FIX\<close> loses the highest bit of a 64-bit one.\<close>

definition LONG2FIX :: "int \<Rightarrow> ruby_value" where
  "LONG2FIX i = Fix ((i + 2 ^ 62) mod 2 ^ 63 - 2 ^ 62)"

end
