(* ===== verification/Ws_Http_Parser.thy ===== *)
theory Ws_Http_Parser
  imports Ws_Http_Rows Parser_Buffer
begin

text \<open>
  ext/websocket_http_parser/ws_http_parser.h and the C of ws_http_parser.rl: the parser struct,
  the actions of the grammar and \<open>ws_http_request_parser_execute\<close> around the table driven loop.
  The function pointers of the struct (\<open>header\<close> and \<open>request\<close>) are set once, by
  \<open>HttpRequestParser_alloc\<close>; they are one parameter \<open>cb\<close> here, which gets the call that is made
  and the state of the caller.  A pointer into the buffer is the string from there on.  A failing
  \<open>assert\<close>, a read outside a buffer or an array and a callback that does not return are \<open>None\<close>.
\<close>

datatype ws_method = method_GET | method_POST | method_OPTIONS | method_unknown

datatype ws_uri_scheme = uri_scheme_http | uri_scheme_https | uri_scheme_unknown

record ws_http_request_parser =
  w_cs :: int
  w_nread :: nat
  w_error_start :: "string option"
  w_error_len :: nat
  w_error_pos :: int
  w_mark :: nat
  w_hdr_field_start :: nat
  w_hdr_field_len :: nat
  w_hdr_value_start :: nat
  w_hdr_value_len :: nat
  w_query_start :: nat
  w_fragment_start :: nat
  w_method :: "ws_method option"
  w_uri_scheme :: "ws_uri_scheme option"
  w_data :: "rval option"

datatype ws_call =
    Header string nat string nat
  | Method string nat "ws_method option"
  | Request_uri string nat
  | Request_path string nat
  | Query string nat
  | Fragment string nat
  | Http_version string nat
  | Host string nat
  | Port string nat
  | Content_length string nat
  | Hdr_connection_value string nat
  | Hdr_upgrade string nat
  | Hdr_origin string nat
  | Hdr_sec_websocket_version string nat
  | Hdr_sec_websocket_key string nat
  | Hdr_sec_websocket_protocol_value string nat

type_synonym 'h ws_callbacks = "rval option \<Rightarrow> ws_call \<Rightarrow> 'h \<Rightarrow> 'h option"

definition ws_http_request_parser_init :: "ws_http_request_parser \<Rightarrow> ws_http_request_parser" where
  "ws_http_request_parser_init pr = pr
     \<lparr>w_cs := ws_http_request_parser_start, w_nread := 0, w_error_start := None, w_error_len := 0,
      w_error_pos := 0, w_mark := 0, w_hdr_field_start := 0, w_hdr_field_len := 0,
      w_hdr_value_start := 0, w_hdr_value_len := 0, w_query_start := 0, w_fragment_start := 0,
      w_method := None, w_uri_scheme := None, w_data := None\<rparr>"

text \<open>
  One action of the grammar, by its number in the generated \<open>switch\<close>: it changes the struct
  (and the last one leaves the loop), or it calls a function of the caller.
\<close>

datatype ws_effect = Set ws_http_request_parser bool | Call ws_call

definition ws_action :: "string \<Rightarrow> int \<Rightarrow> nat \<Rightarrow> ws_http_request_parser \<Rightarrow> ws_effect" where
  "ws_action buffer a p pr =
     (let PTR_TO = (\<lambda>i. drop i buffer);
          set = (\<lambda>pr'. Set pr' False);
          marked = (\<lambda>C. Call (C (PTR_TO (w_mark pr)) (LEN (w_mark pr) p)))
      in
        if a = 0 then set (pr\<lparr>w_mark := p\<rparr>)
        else if a = 1 then set (pr\<lparr>w_hdr_field_start := p\<rparr>)
        else if a = 2 then set (pr\<lparr>w_hdr_field_len := LEN (w_hdr_field_start pr) p\<rparr>)
        else if a = 3 then set (pr\<lparr>w_hdr_value_start := p\<rparr>)
        else if a = 4 then set (pr\<lparr>w_hdr_value_len := LEN (w_hdr_value_start pr) p\<rparr>)
        else if a = 5 then
          (if w_hdr_value_start pr \<noteq> 0
           then Call (Header (PTR_TO (w_hdr_field_start pr)) (w_hdr_field_len pr)
                        (PTR_TO (w_hdr_value_start pr)) (w_hdr_value_len pr))
           else set pr)
        else if a = 6 then set (pr\<lparr>w_method := Some method_GET\<rparr>)
        else if a = 7 then set (pr\<lparr>w_method := Some method_POST\<rparr>)
        else if a = 8 then set (pr\<lparr>w_method := Some method_OPTIONS\<rparr>)
        else if a = 9 then
          set (if w_method pr = None then pr\<lparr>w_method := Some method_unknown\<rparr> else pr)
        else if a = 10 then
          Call (Method (PTR_TO (w_mark pr)) (LEN (w_mark pr) p) (w_method pr))
        else if a = 11 then marked Request_uri
        else if a = 12 then marked Request_path
        else if a = 13 then set (pr\<lparr>w_query_start := p\<rparr>)
        else if a = 14 then Call (Query (PTR_TO (w_query_start pr)) (LEN (w_query_start pr) p))
        else if a = 15 then set (pr\<lparr>w_fragment_start := p\<rparr>)
        else if a = 16 then
          Call (Fragment (PTR_TO (w_fragment_start pr)) (LEN (w_fragment_start pr) p))
        else if a = 17 then marked Http_version
        else if a = 18 then marked Host
        else if a = 19 then marked Port
        else if a = 20 then marked Content_length
        else if a = 21 then marked Hdr_connection_value
        else if a = 22 then marked Hdr_upgrade
        else if a = 23 then marked Hdr_origin
        else if a = 24 then marked Hdr_sec_websocket_version
        else if a = 25 then marked Hdr_sec_websocket_key
        else if a = 26 then marked Hdr_sec_websocket_protocol_value
        else if a = 27 then Set pr True
        else set pr)"

text \<open>The action as the loop runs it, on the struct and the caller's state.\<close>

definition ws_act ::
  "'h ws_callbacks \<Rightarrow> string \<Rightarrow> int \<Rightarrow> nat \<Rightarrow> ws_http_request_parser \<times> 'h \<Rightarrow>
   ((ws_http_request_parser \<times> 'h) \<times> bool) option" where
  "ws_act cb buffer a p s =
     (case s of (pr, h) \<Rightarrow>
        (case ws_action buffer a p pr of
           Set pr' out \<Rightarrow> Some ((pr', h), out)
         | Call c \<Rightarrow> map_option (\<lambda>h'. ((pr, h'), False)) (cb (w_data pr) c h)))"

abbreviation ws_step :: "ws_http_request_parser \<times> 'h \<Rightarrow> int \<Rightarrow> int \<Rightarrow> (int \<times> int list) option" where
  "ws_step d \<equiv> t0_step ws_tables"

definition ws_http_request_parser_has_error :: "ws_http_request_parser \<Rightarrow> bool" where
  "ws_http_request_parser_has_error pr \<longleftrightarrow> w_cs pr = ws_http_request_parser_error"

definition ws_http_request_parser_is_finished :: "ws_http_request_parser \<Rightarrow> bool" where
  "ws_http_request_parser_is_finished pr \<longleftrightarrow> w_cs pr = ws_http_request_parser_first_final"

definition ws_http_request_parser_finish :: "ws_http_request_parser \<Rightarrow> int" where
  "ws_http_request_parser_finish pr =
     (if ws_http_request_parser_has_error pr then -1
      else if ws_http_request_parser_is_finished pr then 1 else 0)"

text \<open>\<open>buffer\<close> is the memory from the pointer on.\<close>

definition ws_http_request_parser_execute ::
  "'h ws_callbacks \<Rightarrow> ws_http_request_parser \<Rightarrow> 'h \<Rightarrow> string \<Rightarrow> nat \<Rightarrow> nat \<Rightarrow>
   (ws_http_request_parser \<times> 'h) option" where
  "ws_http_request_parser_execute cb pr h buffer len off =
     (if \<not> off \<le> len then None
      else if length buffer \<le> len \<or> buffer ! len \<noteq> CHR 0x00 then None
      else do {
        (cs, p, pr, h) \<leftarrow>
          t0_exec ws_step (ws_act cb buffer) (w_cs pr) off (take (len - off) (drop off buffer)) (pr, h);
        let pr = pr\<lparr>w_cs := cs, w_nread := w_nread pr + (p - off)\<rparr>;
        (if p \<le> len \<and> w_nread pr \<le> len \<and> w_mark pr < len \<and> w_hdr_field_start pr < len \<and>
            w_hdr_field_len pr \<le> len \<and> w_hdr_value_start pr < len \<and> w_hdr_value_len pr \<le> len
         then
           Some (if ws_http_request_parser_has_error pr
                 then pr\<lparr>w_error_start := Some buffer, w_error_len := len, w_error_pos := to_c_int (int p)\<rparr>
                 else pr, h)
         else None)
      })"

end
