(* ===== verification/Ws_Http_Trace.thy ===== *)
theory Ws_Http_Trace
  imports Ws_Http_Parser Port_Spec
begin

text \<open>
  What the actions of ws_http_parser.rl do to the parser struct, whoever is called: a run is the
  struct it ends with and the list of the calls it makes.  Then an abstract state of the struct
  (which slices are inside the characters read, how many digits follow \<open>mark\<close>, how far the
  request line has got), what each action needs of it and makes of it, and a certificate, one
  abstract state per machine state, that every transition keeps.
\<close>

subsection \<open>A run as a list of calls\<close>

fun replay :: "'h ws_callbacks \<Rightarrow> rval option \<Rightarrow> ws_call list \<Rightarrow> 'h \<Rightarrow> 'h option" where
  "replay cb d [] h = Some h"
| "replay cb d (c # cs) h = (case cb d c h of None \<Rightarrow> None | Some h' \<Rightarrow> replay cb d cs h')"

lemma replay_append:
  "replay cb d (xs @ ys) h = (case replay cb d xs h of None \<Rightarrow> None | Some h' \<Rightarrow> replay cb d ys h')"
  by (induction xs arbitrary: h) (auto split: option.splits)

fun ws_acts ::
  "string \<Rightarrow> nat \<Rightarrow> int list \<Rightarrow> ws_http_request_parser \<Rightarrow> ws_http_request_parser \<times> ws_call list \<times> bool"
  where
  "ws_acts buffer p [] pr = (pr, [], False)"
| "ws_acts buffer p (a # as) pr =
     (case ws_action buffer a p pr of
        Set pr' out \<Rightarrow> if out then (pr', [], True) else ws_acts buffer p as pr'
      | Call c \<Rightarrow> (case ws_acts buffer p as pr of (pr', log, out) \<Rightarrow> (pr', c # log, out)))"

fun ws_trace ::
  "string \<Rightarrow> int \<Rightarrow> nat \<Rightarrow> string \<Rightarrow> ws_http_request_parser \<Rightarrow>
   (int \<times> nat \<times> ws_http_request_parser \<times> ws_call list) option" where
  "ws_trace buffer cs p [] pr = Some (cs, p, pr, [])"
| "ws_trace buffer cs p (c # w) pr =
     (if cs = 0 then Some (cs, p, pr, [])
      else
        (case t0_step ws_tables cs (schar c) of
           None \<Rightarrow> None
         | Some (cs', as) \<Rightarrow>
             (case ws_acts buffer p as pr of
                (pr', log, out) \<Rightarrow>
                  if out then Some (cs', p + 1, pr', log)
                  else if cs' = 0 then Some (cs', p, pr', log)
                  else
                    map_option (\<lambda>(cs'', q, pr'', log'). (cs'', q, pr'', log @ log'))
                      (ws_trace buffer cs' (p + 1) w pr'))))"

lemma ws_action_data: "ws_action buffer a p pr = Set pr' out \<Longrightarrow> w_data pr' = w_data pr"
  by (auto simp: ws_action_def Let_def split: if_splits)

lemma ws_acts_data: "ws_acts buffer p as pr = (pr', log, out) \<Longrightarrow> w_data pr' = w_data pr"
  by (induction as arbitrary: pr log out)
    (auto split: ws_effect.splits if_splits prod.splits dest: ws_action_data)

lemma ws_trace_data: "ws_trace buffer cs p w pr = Some (cs', q, pr', log) \<Longrightarrow> w_data pr' = w_data pr"
  by (induction w arbitrary: cs p pr log)
    (fastforce split: option.splits prod.splits if_splits dest: ws_acts_data)+

lemma t0_acts_replay:
  "t0_acts (ws_act cb buffer) p as (pr, h) =
     (case ws_acts buffer p as pr of
        (pr', log, out) \<Rightarrow> map_option (\<lambda>h'. ((pr', h'), out)) (replay cb (w_data pr) log h))"
proof (induction as arbitrary: pr h)
  case (Cons a as)
  show ?case
  proof (cases "ws_action buffer a p pr")
    case (Set pr' out)
    then show ?thesis using Cons.IH [of pr' h] ws_action_data [OF Set]
      by (auto simp: ws_act_def split: prod.splits option.splits)
  next
    case (Call c)
    then show ?thesis using Cons.IH [of pr]
      by (auto simp: ws_act_def split: prod.splits option.splits)
  qed
qed simp

lemma t0_exec_replay:
  "t0_exec ws_step (ws_act cb buffer) cs p w (pr, h) =
     (case ws_trace buffer cs p w pr of
        None \<Rightarrow> None
      | Some (cs', q, pr', log) \<Rightarrow> map_option (\<lambda>h'. (cs', q, pr', h')) (replay cb (w_data pr) log h))"
proof (induction w arbitrary: cs p pr h)
  case (Cons c w)
  show ?case
  proof (cases "cs = 0")
    case False
    show ?thesis
    proof (cases "t0_step ws_tables cs (schar c)")
      case (Some x)
      obtain cs' as where x: "x = (cs', as)" by (cases x)
      obtain pr' log out where acts: "ws_acts buffer p as pr = (pr', log, out)"
        by (metis prod_cases3)
      have d: "w_data pr' = w_data pr" by (rule ws_acts_data [OF acts])
      show ?thesis
      proof (cases "replay cb (w_data pr) log h")
        case None
        then show ?thesis using False Some x acts t0_acts_replay [of cb buffer p as pr h]
          by (cases "ws_trace buffer cs' (p + 1) w pr'") (auto simp: replay_append split: prod.splits)
      next
        case (Some h')
        then show ?thesis
          using False \<open>t0_step ws_tables cs (schar c) = _\<close> x acts d
            t0_acts_replay [of cb buffer p as pr h] Cons.IH [of cs' "p + 1" pr' h']
          by (cases "ws_trace buffer cs' (p + 1) w pr'") (auto simp: replay_append split: prod.splits)
      qed
    qed (use False in simp)
  qed simp
qed simp


subsection \<open>What a call may look at\<close>

text \<open>
  A call's slices are inside the buffer, with at least \<open>k\<close> characters behind them; a host is not
  empty, a port and a version are at most nine digits, and so is a content length, whose number
  ends before a blank, a tab or a carriage return.
\<close>

abbreviation slice_ok :: "nat \<Rightarrow> string \<Rightarrow> nat \<Rightarrow> bool" where
  "slice_ok k at n \<equiv> n + k \<le> length at"

definition digits_ok :: "string \<Rightarrow> nat \<Rightarrow> bool" where
  "digits_ok at n \<longleftrightarrow> 1 \<le> n \<and> n \<le> 9 \<and> list_all is_digit (take n at)"

definition ends_number :: "char \<Rightarrow> bool" where
  "ends_number c \<longleftrightarrow> schar c \<in> {9, 13, 32}"

fun call_ok :: "nat \<Rightarrow> ws_call \<Rightarrow> bool" where
  "call_ok k (Header f m v n) \<longleftrightarrow> slice_ok k f m \<and> slice_ok k v n"
| "call_ok k (Method at n m) \<longleftrightarrow> slice_ok k at n"
| "call_ok k (Request_uri at n) \<longleftrightarrow> slice_ok k at n"
| "call_ok k (Request_path at n) \<longleftrightarrow> slice_ok k at n"
| "call_ok k (Query at n) \<longleftrightarrow> slice_ok k at n"
| "call_ok k (Fragment at n) \<longleftrightarrow> slice_ok k at n"
| "call_ok k (Http_version at n) \<longleftrightarrow> slice_ok k at n"
| "call_ok k (Host at n) \<longleftrightarrow> slice_ok k at n \<and> 1 \<le> n"
| "call_ok k (Port at n) \<longleftrightarrow> slice_ok k at n \<and> digits_ok at n"
| "call_ok k (Content_length at n) \<longleftrightarrow> slice_ok k at n \<and> digits_ok at n \<and> ends_number (at ! n)"
| "call_ok k (Hdr_connection_value at n) \<longleftrightarrow> slice_ok k at n"
| "call_ok k (Hdr_upgrade at n) \<longleftrightarrow> slice_ok k at n"
| "call_ok k (Hdr_origin at n) \<longleftrightarrow> slice_ok k at n"
| "call_ok k (Hdr_sec_websocket_version at n) \<longleftrightarrow> slice_ok k at n \<and> digits_ok at n"
| "call_ok k (Hdr_sec_websocket_key at n) \<longleftrightarrow> slice_ok k at n"
| "call_ok k (Hdr_sec_websocket_protocol_value at n) \<longleftrightarrow> slice_ok k at n"

text \<open>The part of a call its callback looks at.\<close>

fun view :: "ws_call \<Rightarrow> ws_call" where
  "view (Header f m v n) = Header (take m f) m (take n v) n"
| "view (Method at n m) = Method (take n at) n m"
| "view (Request_uri at n) = Request_uri (take n at) n"
| "view (Request_path at n) = Request_path (take n at) n"
| "view (Query at n) = Query (take n at) n"
| "view (Fragment at n) = Fragment (take n at) n"
| "view (Http_version at n) = Http_version (take n at) n"
| "view (Host at n) = Host (take n at) n"
| "view (Port at n) = Port (take n at) n"
| "view (Content_length at n) = Content_length (take (n + 1) at) n"
| "view (Hdr_connection_value at n) = Hdr_connection_value (take n at) n"
| "view (Hdr_upgrade at n) = Hdr_upgrade (take n at) n"
| "view (Hdr_origin at n) = Hdr_origin (take n at) n"
| "view (Hdr_sec_websocket_version at n) = Hdr_sec_websocket_version (take n at) n"
| "view (Hdr_sec_websocket_key at n) = Hdr_sec_websocket_key (take n at) n"
| "view (Hdr_sec_websocket_protocol_value at n) = Hdr_sec_websocket_protocol_value (take n at) n"

text \<open>
  How far the request line has got: 0 nothing, 1 the method, 2 the path, 3 the query, 4 the
  fragment, 5 the whole URI, 6 the version.  Headers come after all of these.
\<close>

fun call_phase :: "ws_call \<Rightarrow> int \<Rightarrow> int option" where
  "call_phase (Method at n m) q = (if q = 0 then Some 1 else None)"
| "call_phase (Request_path at n) q = (if q = 1 then Some 2 else None)"
| "call_phase (Query at n) q = (if q = 2 then Some 3 else None)"
| "call_phase (Fragment at n) q = (if q = 2 \<or> q = 3 then Some 4 else None)"
| "call_phase (Request_uri at n) q = (if q = 2 \<or> q = 3 \<or> q = 4 then Some 5 else None)"
| "call_phase (Http_version at n) q = (if q = 5 then Some 6 else None)"
| "call_phase c q = (if q = 6 then Some 6 else None)"

fun log_phase :: "ws_call list \<Rightarrow> int \<Rightarrow> int option" where
  "log_phase [] q = Some q"
| "log_phase (c # cs) q = (case call_phase c q of None \<Rightarrow> None | Some q' \<Rightarrow> log_phase cs q')"

lemma log_phase_append:
  "log_phase (xs @ ys) q = (case log_phase xs q of None \<Rightarrow> None | Some q' \<Rightarrow> log_phase ys q')"
  by (induction xs arbitrary: q) (auto split: option.splits)

subsection \<open>Abstract states\<close>

text \<open>
  \<open>digits\<close> is 0 when nothing is known, else a bound on the digits from \<open>mark\<close> on; \<open>mark_here\<close> says
  that this transition has set \<open>mark\<close>, \<open>mark_lt\<close> that \<open>mark\<close> is behind.
\<close>

record ws_abs =
  field_ok :: bool
  value_ok :: bool
  digits :: int
  mark_here :: bool
  mark_lt :: bool
  phases :: "int list"

definition phase_at :: "int \<Rightarrow> int \<Rightarrow> int option" where
  "phase_at a q =
     (if a = 10 then if q = 0 then Some 1 else None
      else if a = 12 then if q = 1 then Some 2 else None
      else if a = 14 then if q = 2 then Some 3 else None
      else if a = 16 then if q = 2 \<or> q = 3 then Some 4 else None
      else if a = 11 then if q = 2 \<or> q = 3 \<or> q = 4 then Some 5 else None
      else if a = 17 then if q = 5 then Some 6 else None
      else if q = 6 then Some 6 else None)"

fun step_phases :: "(int \<Rightarrow> int option) \<Rightarrow> int list \<Rightarrow> int list option" where
  "step_phases f [] = Some []"
| "step_phases f (q # qs) =
     (case f q of
        None \<Rightarrow> None
      | Some q' \<Rightarrow> (case step_phases f qs of None \<Rightarrow> None | Some qs' \<Rightarrow> Some (q' # qs')))"

lemma step_phases_mem:
  "step_phases f qs = Some qs' \<Longrightarrow> q \<in> set qs \<Longrightarrow> \<exists>q' \<in> set qs'. f q = Some q'"
  by (induction f qs arbitrary: qs' rule: step_phases.induct) (auto split: option.splits)

definition abs_call :: "int \<Rightarrow> ws_abs \<Rightarrow> ws_abs option" where
  "abs_call a A =
     (case step_phases (phase_at a) (phases A) of None \<Rightarrow> None | Some qs \<Rightarrow> Some (A\<lparr>phases := qs\<rparr>))"

definition blank :: "int \<Rightarrow> int \<Rightarrow> bool" where
  "blank lo hi \<longleftrightarrow> lo = hi \<and> (lo = 9 \<or> lo = 13 \<or> lo = 32)"

text \<open>What an action needs of the abstract state (\<open>None\<close> when it has not got it) and makes of it.\<close>

definition abs_action :: "int \<Rightarrow> int \<Rightarrow> int \<Rightarrow> ws_abs \<Rightarrow> ws_abs option" where
  "abs_action lo hi a A =
     (if a = 0 then Some (A\<lparr>mark_here := True, mark_lt := False\<rparr>)
      else if a = 1 then Some (A\<lparr>field_ok := False\<rparr>)
      else if a = 2 then Some (A\<lparr>field_ok := True\<rparr>)
      else if a = 3 then Some (A\<lparr>value_ok := False\<rparr>)
      else if a = 4 then Some (A\<lparr>value_ok := True\<rparr>)
      else if a = 5 then if field_ok A \<and> value_ok A then abs_call a A else None
      else if a = 6 \<or> a = 7 \<or> a = 8 \<or> a = 9 \<or> a = 13 \<or> a = 15 \<or> a = 27 then Some A
      else if a = 18 then if mark_lt A then abs_call a A else None
      else if a = 19 \<or> a = 24 then if \<not> mark_here A \<and> 0 < digits A then abs_call a A else None
      else if a = 20 then if \<not> mark_here A \<and> 0 < digits A \<and> blank lo hi then abs_call a A else None
      else if 10 \<le> a \<and> a \<le> 26 then abs_call a A
      else None)"

fun abs_actions :: "int \<Rightarrow> int \<Rightarrow> int list \<Rightarrow> ws_abs \<Rightarrow> ws_abs option" where
  "abs_actions lo hi [] A = Some A"
| "abs_actions lo hi (a # as) A =
     (case abs_action lo hi a A of None \<Rightarrow> None | Some A' \<Rightarrow> abs_actions lo hi as A')"

text \<open>The abstract state at the next character, when this one is between \<open>lo\<close> and \<open>hi\<close>.\<close>

definition abs_next :: "int \<Rightarrow> int \<Rightarrow> ws_abs \<Rightarrow> ws_abs" where
  "abs_next lo hi A = A
     \<lparr>digits := (if 48 \<le> lo \<and> hi \<le> 57
                 then if mark_here A then 1 else if 0 < digits A \<and> digits A < 9 then digits A + 1 else 0
                 else 0),
      mark_here := False, mark_lt := True\<rparr>"

definition abs_le :: "ws_abs \<Rightarrow> ws_abs \<Rightarrow> bool" where
  "abs_le A B \<longleftrightarrow>
     (field_ok B \<longrightarrow> field_ok A) \<and> (value_ok B \<longrightarrow> value_ok A) \<and>
     (digits B = 0 \<or> 0 < digits A \<and> digits A \<le> digits B \<and> digits B \<le> 9) \<and> mark_here A = mark_here B \<and>
     (mark_lt B \<longrightarrow> mark_lt A) \<and> list_all (\<lambda>q. q \<in> set (phases B)) (phases A)"

text \<open>What a certificate \<open>C\<close> has to satisfy in each cell of the table.\<close>

definition ws_cell :: "(int \<Rightarrow> ws_abs) \<Rightarrow> int \<Rightarrow> int \<Rightarrow> int \<Rightarrow> int \<Rightarrow> int list \<Rightarrow> bool" where
  "ws_cell C cs lo hi cs' as \<longleftrightarrow>
     (if cs' = 0 then as = []
      else
        1 \<le> cs' \<and> cs' \<le> 442 \<and> (if as = [] then cs' \<noteq> 442 else (last as = 27) = (cs' = 442)) \<and>
        27 \<notin> set (butlast as) \<and>
        (case abs_actions lo hi as (C cs) of None \<Rightarrow> False | Some A \<Rightarrow> abs_le (abs_next lo hi A) (C cs')))"


subsection \<open>What an abstract state says\<close>

text \<open>
  \<open>p\<close> is the position of the next character, \<open>b\<close> a bound on the offsets the struct holds, \<open>L\<close>
  the calls made so far.
\<close>

definition ws_bounds :: "nat \<Rightarrow> ws_http_request_parser \<Rightarrow> bool" where
  "ws_bounds b pr \<longleftrightarrow>
     w_mark pr \<le> b \<and> w_hdr_field_start pr \<le> b \<and> w_hdr_field_len pr \<le> b \<and>
     w_hdr_value_start pr \<le> b \<and> w_hdr_value_len pr \<le> b \<and> w_query_start pr \<le> b \<and>
     w_fragment_start pr \<le> b"

definition digits_from :: "string \<Rightarrow> nat \<Rightarrow> nat \<Rightarrow> bool" where
  "digits_from buffer m p \<longleftrightarrow> (\<forall>i. m \<le> i \<and> i < p \<longrightarrow> is_digit (buffer ! i))"

definition ws_holds ::
  "string \<Rightarrow> nat \<Rightarrow> nat \<Rightarrow> ws_abs \<Rightarrow> ws_http_request_parser \<Rightarrow> ws_call list \<Rightarrow> bool" where
  "ws_holds buffer p b A pr L \<longleftrightarrow>
     ws_bounds b pr \<and>
     (field_ok A \<longrightarrow> w_hdr_field_start pr + w_hdr_field_len pr \<le> p) \<and>
     (value_ok A \<longrightarrow> w_hdr_value_start pr + w_hdr_value_len pr \<le> p) \<and>
     (0 < digits A \<and> \<not> mark_here A \<longrightarrow>
        w_mark pr < p \<and> int p - int (w_mark pr) \<le> digits A \<and> digits A \<le> 9 \<and>
        digits_from buffer (w_mark pr) p) \<and>
     (mark_here A \<longrightarrow> w_mark pr = p) \<and> (mark_lt A \<longrightarrow> w_mark pr < p) \<and>
     (\<exists>q \<in> set (phases A). log_phase L 0 = Some q)"

lemma LEN_eq: "at \<le> p \<Longrightarrow> p < 2 ^ 63 \<Longrightarrow> LEN at p = p - at"
proof -
  assume "at \<le> p" "p < 2 ^ 63"
  then have e: "int p - int at = int (p - at)" and lt: "int (p - at) < 2 ^ 64"
    by (simp_all add: of_nat_diff)
  have "int (p - at) mod 2 ^ 64 = int (p - at)" using lt by (intro mod_pos_pos_trivial) simp_all
  then show ?thesis unfolding LEN_def e by (simp only: nat_int)
qed

lemma digits_from_take:
  assumes "digits_from buffer m p" and "p \<le> length buffer"
  shows "list_all is_digit (take (p - m) (drop m buffer))"
  using assms by (auto simp: digits_from_def list_all_length)

lemma holds_bounds: "ws_holds buffer p b A pr L \<Longrightarrow> ws_bounds b pr"
  by (simp add: ws_holds_def)

lemma holds_writes:
  assumes "ws_holds buffer p p A pr L"
  shows "ws_holds buffer p p (A\<lparr>mark_here := True, mark_lt := False\<rparr>) (pr\<lparr>w_mark := p\<rparr>) L"
    "ws_holds buffer p p (A\<lparr>field_ok := False\<rparr>) (pr\<lparr>w_hdr_field_start := p\<rparr>) L"
    "ws_holds buffer p p (A\<lparr>field_ok := True\<rparr>) (pr\<lparr>w_hdr_field_len := p - w_hdr_field_start pr\<rparr>) L"
    "ws_holds buffer p p (A\<lparr>value_ok := False\<rparr>) (pr\<lparr>w_hdr_value_start := p\<rparr>) L"
    "ws_holds buffer p p (A\<lparr>value_ok := True\<rparr>) (pr\<lparr>w_hdr_value_len := p - w_hdr_value_start pr\<rparr>) L"
    "ws_holds buffer p p A (pr\<lparr>w_method := m\<rparr>) L"
    "ws_holds buffer p p A (pr\<lparr>w_query_start := p\<rparr>) L"
    "ws_holds buffer p p A (pr\<lparr>w_fragment_start := p\<rparr>) L"
  using assms by (simp_all add: ws_holds_def ws_bounds_def)

lemma abs_call_holds:
  assumes "ws_holds buffer p b A pr L" and "abs_call a A = Some A'"
    and "\<And>q. phase_at a q = call_phase c q"
  shows "ws_holds buffer p b A' pr (L @ [c])"
proof -
  obtain qs where qs: "step_phases (phase_at a) (phases A) = Some qs" "A' = A\<lparr>phases := qs\<rparr>"
    using assms(2) by (auto simp: abs_call_def split: option.splits)
  obtain q where q: "q \<in> set (phases A)" "log_phase L 0 = Some q" using assms(1) by (auto simp: ws_holds_def)
  obtain q' where "q' \<in> set qs" "phase_at a q = Some q'" using step_phases_mem [OF qs(1) q(1)] by auto
  then have "\<exists>q' \<in> set qs. log_phase (L @ [c]) 0 = Some q'"
    using q(2) assms(3) by (auto simp: log_phase_append)
  with assms(1) show ?thesis by (simp add: ws_holds_def qs(2))
qed

lemma abs_call_keeps:
  assumes "ws_holds buffer p b A pr L" and "abs_call a A = Some A'"
    and "\<And>q q'. phase_at a q = Some q' \<Longrightarrow> q' = q"
  shows "ws_holds buffer p b A' pr L"
proof -
  obtain qs where qs: "step_phases (phase_at a) (phases A) = Some qs" "A' = A\<lparr>phases := qs\<rparr>"
    using assms(2) by (auto simp: abs_call_def split: option.splits)
  obtain q where q: "q \<in> set (phases A)" "log_phase L 0 = Some q" using assms(1) by (auto simp: ws_holds_def)
  obtain q' where "q' \<in> set qs" "phase_at a q = Some q'" using step_phases_mem [OF qs(1) q(1)] by auto
  then have "\<exists>q \<in> set qs. log_phase L 0 = Some q" using q(2) assms(3) by auto
  with assms(1) show ?thesis by (simp add: ws_holds_def qs(2))
qed

text \<open>A call made with a slice from an offset \<open>m\<close> that is behind \<open>p\<close>.\<close>

lemma slice_from:
  assumes "m + n \<le> p" and "p < length buffer"
  shows "slice_ok (length buffer - p) (drop m buffer) n"
  using assms by simp

text \<open>The actions that write the struct, that call with the slice from an offset, with a number.\<close>

definition writes :: "int \<Rightarrow> bool" where
  "writes a \<longleftrightarrow> a = 0 \<or> a = 1 \<or> a = 2 \<or> a = 3 \<or> a = 4 \<or> a = 6 \<or> a = 7 \<or> a = 8 \<or> a = 9 \<or> a = 13 \<or>
     a = 15 \<or> a = 27"

definition calls_slice :: "int \<Rightarrow> bool" where
  "calls_slice a \<longleftrightarrow> a = 10 \<or> a = 11 \<or> a = 12 \<or> a = 14 \<or> a = 16 \<or> a = 17 \<or> a = 18 \<or> a = 21 \<or> a = 22 \<or>
     a = 23 \<or> a = 25 \<or> a = 26"

definition calls_number :: "int \<Rightarrow> bool" where
  "calls_number a \<longleftrightarrow> a = 19 \<or> a = 24 \<or> a = 20"

lemma action_kinds:
  assumes "0 \<le> a" and "a \<le> (27 :: int)"
  shows "writes a \<or> a = 5 \<or> calls_slice a \<or> calls_number a"
proof -
  have "a \<in> set [0..27]" using assms by simp
  then show ?thesis
    unfolding writes_def calls_slice_def calls_number_def
    by (simp only: upto_rec1 list.set insert_iff) (simp add: upto_rec1, elim disjE, simp_all)
qed

lemma ws_action_sound:
  assumes h: "ws_holds buffer p p A pr L" and abs: "abs_action lo hi a A = Some A'"
    and p: "p < length buffer" "p < 2 ^ 63" and c: "lo \<le> schar (buffer ! p)" "schar (buffer ! p) \<le> hi"
  shows "(\<exists>pr'. ws_action buffer a p pr = Set pr' (a = 27) \<and> ws_holds buffer p p A' pr' L) \<or>
    (\<exists>c. ws_action buffer a p pr = Call c \<and> call_ok (length buffer - p) c \<and>
       ws_holds buffer p p A' pr (L @ [c]) \<and> a \<noteq> 27)"
proof -
  have b: "w_mark pr \<le> p" "w_hdr_field_start pr \<le> p" "w_hdr_value_start pr \<le> p"
    "w_query_start pr \<le> p" "w_fragment_start pr \<le> p"
    using holds_bounds [OF h] by (simp_all add: ws_bounds_def)
  note LENs = b [THEN LEN_eq, OF p(2)]
  have sl: "slice_ok (length buffer - p) (drop m buffer) (p - m)" if "m \<le> p" for m
    by (rule slice_from) (use that p in simp_all)
  have digs: "digits_ok (drop (w_mark pr) buffer) (p - w_mark pr)" if "0 < digits A" "\<not> mark_here A"
    using h that p digits_from_take [of buffer "w_mark pr" p]
    by (auto simp: ws_holds_def digits_ok_def)
  have "0 \<le> a" "a \<le> 27" using abs by (auto simp: abs_action_def split: if_splits)
  from action_kinds [OF this] consider (set) "writes a" | (header) "a = 5"
    | (call) "calls_slice a" | (number) "calls_number a"
    by blast
  then show ?thesis
  proof cases
    case set
    then show ?thesis
      unfolding writes_def
      using abs LENs holds_writes [OF h] h
      by (elim disjE) (simp_all add: ws_action_def abs_action_def Let_def)
  next
    case header
    then have A: "field_ok A" "value_ok A" "abs_call 5 A = Some A'"
      using abs by (auto simp: abs_action_def split: if_splits)
    show ?thesis
    proof (cases "w_hdr_value_start pr = 0")
      case True
      have "ws_holds buffer p p A' pr L"
        by (rule abs_call_keeps [OF h A(3)]) (simp add: phase_at_def split: if_splits)
      then show ?thesis using header True by (simp add: ws_action_def)
    next
      case False
      let ?c = "Header (drop (w_hdr_field_start pr) buffer) (w_hdr_field_len pr)
        (drop (w_hdr_value_start pr) buffer) (w_hdr_value_len pr)"
      have "ws_holds buffer p p A' pr (L @ [?c])"
        by (rule abs_call_holds [OF h A(3)]) (simp add: phase_at_def)
      moreover have "call_ok (length buffer - p) ?c"
        using h A p by (auto simp: ws_holds_def)
      ultimately show ?thesis using header False by (simp add: ws_action_def)
    qed
  next
    case call
    then have A: "abs_call a A = Some A'" "a = 18 \<longrightarrow> mark_lt A"
      using abs unfolding calls_slice_def
      by (elim disjE; simp add: abs_action_def split: if_splits)+
    have holds: "ws_holds buffer p p A' pr (L @ [c])" if "\<And>q. phase_at a q = call_phase c q" for c
      by (rule abs_call_holds [OF h A(1) that])
    have lt: "w_mark pr < p" if "a = 18" using h A(2) that by (simp add: ws_holds_def)
    from call show ?thesis
      unfolding calls_slice_def
      using sl b lt by (elim disjE) (auto simp: ws_action_def Let_def LENs phase_at_def intro!: holds)
  next
    case number
    then have A: "abs_call a A = Some A'" "\<not> mark_here A" "0 < digits A" "a = 20 \<longrightarrow> blank lo hi"
      using abs unfolding calls_number_def by (elim disjE; simp add: abs_action_def split: if_splits)+
    have holds: "ws_holds buffer p p A' pr (L @ [c])" if "\<And>q. phase_at a q = call_phase c q" for c
      by (rule abs_call_holds [OF h A(1) that])
    have blank: "ends_number (drop (w_mark pr) buffer ! (p - w_mark pr))" if "a = 20"
      using A(4) that c p b(1) by (auto simp: blank_def ends_number_def)
    from number show ?thesis
      unfolding calls_number_def
      using sl b digs [OF A(3,2)] blank
      by (elim disjE) (auto simp: ws_action_def Let_def LENs phase_at_def intro!: holds)
  qed
qed

end
