(* ===== verification/Ws_Http_Run.thy ===== *)
theory Ws_Http_Run
  imports Ws_Http_Trace
begin

text \<open>
  Runs of the loop of ws_http_parser.c under a certificate: from a state the certificate
  describes every run goes through, makes only proper calls, and makes the same calls whether its
  input is in one buffer or still growing.
\<close>

subsection \<open>One transition\<close>

lemma ws_acts_sound:
  assumes "ws_holds buffer p p A pr L" and "abs_actions lo hi as A = Some A'"
    and "27 \<notin> set (butlast as)"
    and p: "p < length buffer" "p < 2 ^ 63" and c: "lo \<le> schar (buffer ! p)" "schar (buffer ! p) \<le> hi"
  shows "\<exists>pr' log. ws_acts buffer p as pr = (pr', log, as \<noteq> [] \<and> last as = 27) \<and>
    ws_holds buffer p p A' pr' (L @ log) \<and> list_all (call_ok (length buffer - p)) log"
  using assms(1-3)
proof (induction as arbitrary: A pr L)
  case Nil
  then show ?case by simp
next
  case (Cons a as)
  obtain B where B: "abs_action lo hi a A = Some B" "abs_actions lo hi as B = Some A'"
    using Cons.prems(2) by (auto split: option.splits)
  have bl: "27 \<notin> set (butlast as)" and a27: "as \<noteq> [] \<longrightarrow> a \<noteq> 27"
    using Cons.prems(3) by (auto split: if_splits)
  from ws_action_sound [OF Cons.prems(1) B(1) p c] show ?case
  proof (elim disjE exE conjE)
    fix pr' assume s: "ws_action buffer a p pr = Set pr' (a = 27)" "ws_holds buffer p p B pr' L"
    show ?thesis
    proof (cases "as = []")
      case True
      then show ?thesis using s B by simp
    next
      case False
      then show ?thesis using s a27 Cons.IH [OF s(2) B(2) bl] by auto
    qed
  next
    fix c assume s: "ws_action buffer a p pr = Call c" "call_ok (length buffer - p) c"
      "ws_holds buffer p p B pr (L @ [c])" "a \<noteq> 27"
    obtain pr' log where "ws_acts buffer p as pr = (pr', log, as \<noteq> [] \<and> last as = 27)"
      "ws_holds buffer p p A' pr' ((L @ [c]) @ log)" "list_all (call_ok (length buffer - p)) log"
      using Cons.IH [OF s(3) B(2) bl] by blast
    then show ?thesis using s by auto
  qed
qed

lemma ws_holds_next:
  assumes h: "ws_holds buffer p p A pr L" and le: "abs_le (abs_next lo hi A) B"
    and c: "lo \<le> schar (buffer ! p)" "schar (buffer ! p) \<le> hi"
  shows "ws_holds buffer (p + 1) p B pr L \<and> \<not> mark_here B"
proof -
  have b: "ws_bounds p pr" by (rule holds_bounds [OF h])
  have nm: "\<not> mark_here B" using le by (simp add: abs_le_def abs_next_def)
  have slices: "field_ok B \<longrightarrow> w_hdr_field_start pr + w_hdr_field_len pr \<le> p + 1"
    "value_ok B \<longrightarrow> w_hdr_value_start pr + w_hdr_value_len pr \<le> p + 1"
    using h le by (auto simp: abs_le_def abs_next_def ws_holds_def)
  have ph: "\<exists>q \<in> set (phases B). log_phase L 0 = Some q"
    using h le by (auto simp: abs_le_def abs_next_def ws_holds_def list_all_iff)
  have dig: "w_mark pr < p + 1 \<and> int (p + 1) - int (w_mark pr) \<le> digits B \<and> digits B \<le> 9 \<and>
      digits_from buffer (w_mark pr) (p + 1)" if B: "0 < digits B"
  proof -
    have n: "0 < digits (abs_next lo hi A)" "digits (abs_next lo hi A) \<le> digits B" "digits B \<le> 9"
      using le B by (auto simp: abs_le_def)
    then have d: "is_digit (buffer ! p)" using c by (auto simp: abs_next_def is_digit_def split: if_splits)
    show ?thesis
    proof (cases "mark_here A")
      case True
      then have "w_mark pr = p" using h by (simp add: ws_holds_def)
      then show ?thesis using d n B by (auto simp: digits_from_def less_Suc_eq)
    next
      case False
      then have A: "0 < digits A" "digits A + 1 \<le> digits B"
        using n by (auto simp: abs_next_def split: if_splits)
      then have m: "w_mark pr < p" "int p - int (w_mark pr) \<le> digits A" "digits_from buffer (w_mark pr) p"
        using h False by (auto simp: ws_holds_def)
      then have "digits_from buffer (w_mark pr) (p + 1)" using d by (auto simp: digits_from_def less_Suc_eq)
      then show ?thesis using m A n by simp
    qed
  qed
  show ?thesis using b nm slices ph dig by (simp add: ws_holds_def ws_bounds_def)
qed


lemma ws_holds_later: "ws_holds buffer p b A pr L \<Longrightarrow> b \<le> b' \<Longrightarrow> ws_holds buffer p b' A pr L"
  by (auto simp: ws_holds_def ws_bounds_def)

lemma call_ok_mono: "call_ok k c \<Longrightarrow> k' \<le> k \<Longrightarrow> call_ok k' c"
  by (cases c) auto

lemma calls_ok_mono: "list_all (call_ok k) log \<Longrightarrow> k' \<le> k \<Longrightarrow> list_all (call_ok k') log"
  by (auto simp: list_all_iff intro: call_ok_mono)

lemma take_drop_Cons:
  assumes "take (length (c # w)) (drop p b) = c # w"
  shows "p < length b \<and> b ! p = c \<and> take (length w) (drop (p + 1) b) = w"
proof -
  have p: "p < length b" using assms by (cases "p < length b") simp_all
  then have "drop p b = b ! p # drop (Suc p) b" by (simp add: Cons_nth_drop_Suc)
  with p assms show ?thesis by simp
qed

subsection \<open>The same transition in a longer buffer\<close>

lemma take_drop_agree:
  assumes "take N b1 = take N b2" and "m + n \<le> N"
  shows "take n (drop m b1) = take n (drop m b2)"
proof -
  have e: "take n (drop m b) = drop m (take (m + n) (take N b))" for b :: "'a list"
    using assms(2) by (simp add: take_drop min_absorb1 add.commute)
  show ?thesis unfolding e [of b1] e [of b2] assms(1) ..
qed

lemma slice_behind: "slice_ok (length b - p) (drop m b) n \<Longrightarrow> p < length b \<Longrightarrow> m + n \<le> p"
  by simp

lemma ws_action_agree:
  assumes "take N b1 = take N b2" and "p < N" and "p < length b1"
  shows "case ws_action b1 a p pr of
      Set pr' out \<Rightarrow> ws_action b2 a p pr = Set pr' out
    | Call c \<Rightarrow> call_ok (length b1 - p) c \<longrightarrow>
        (\<exists>c'. ws_action b2 a p pr = Call c' \<and> view c = view c')"
proof -
  have ag: "take n (drop m b1) = take n (drop m b2)" "take (Suc n) (drop m b1) = take (Suc n) (drop m b2)"
    if "slice_ok (length b1 - p) (drop m b1) n" for m n
    using slice_behind [OF that assms(3)] assms(2)
    by (auto intro!: take_drop_agree [OF assms(1)])
  show ?thesis
    unfolding ws_action_def Let_def using ag
    by (simp split: if_split)
qed

lemma ws_acts_agree:
  assumes "take N b1 = take N b2" and "p < N" and "p < length b1"
  shows "ws_acts b1 p as pr = (pr', log, out) \<Longrightarrow> list_all (call_ok (length b1 - p)) log \<Longrightarrow>
    \<exists>log'. ws_acts b2 p as pr = (pr', log', out) \<and> map view log' = map view log"
proof (induction as arbitrary: pr log)
  case (Cons a as)
  note agree = ws_action_agree [OF assms, of a pr]
  show ?case
  proof (cases "ws_action b1 a p pr")
    case (Set x y)
    then show ?thesis using Cons agree by (auto split: if_splits)
  next
    case (Call c)
    then obtain log1 where log1: "log = c # log1" "ws_acts b1 p as pr = (pr', log1, out)"
      using Cons.prems(1) by (auto split: prod.splits)
    then show ?thesis using Call agree Cons.IH [OF log1(2)] Cons.prems(2) by auto
  qed
qed simp

lemma ws_holds_agree:
  assumes "take N b1 = take N b2" and "p \<le> N"
  shows "ws_holds b1 p b A pr L \<Longrightarrow> ws_holds b2 p b A pr L"
proof -
  have "b1 ! i = b2 ! i" if "i < p" for i
    using assms that by (metis nth_take order_less_le_trans)
  then have "digits_from b1 m p \<Longrightarrow> digits_from b2 m p" for m by (simp add: digits_from_def)
  then show "ws_holds b1 p b A pr L \<Longrightarrow> ws_holds b2 p b A pr L" by (auto simp: ws_holds_def)
qed

lemma ws_holds_log:
  "map view L = map view L' \<Longrightarrow> ws_holds buffer p b A pr L \<Longrightarrow> ws_holds buffer p b A pr L'"
proof -
  have v: "call_phase (view c) = call_phase c" for c by (cases c) (simp_all add: fun_eq_iff)
  have "log_phase (map view L) q = log_phase L q" for L q
    by (induction L arbitrary: q) (simp_all add: v split: option.split)
  then show "map view L = map view L' \<Longrightarrow> ws_holds buffer p b A pr L \<Longrightarrow> ws_holds buffer p b A pr L'"
    unfolding ws_holds_def by metis
qed

subsection \<open>Runs under a certificate\<close>

text \<open>
  The certificate's contract: one abstract state per machine state, the first one true of a new
  parser, and every cell of the table kept.
\<close>

locale ws_certified =
  fixes C :: "int \<Rightarrow> ws_abs"
  assumes start: "field_ok (C 1)" "value_ok (C 1)" "digits (C 1) = 0" "\<not> mark_here (C 1)"
      "\<not> mark_lt (C 1)" "0 \<in> set (phases (C 1))"
    and cells: "cells_ok (ws_cell C) 1 ws_rows"
begin

text \<open>The parser is in machine state \<open>cs\<close> before the character at \<open>p\<close>, after the calls \<open>L\<close>.\<close>

definition at_char :: "string \<Rightarrow> nat \<Rightarrow> int \<Rightarrow> ws_http_request_parser \<Rightarrow> ws_call list \<Rightarrow> bool" where
  "at_char buffer p cs pr L \<longleftrightarrow>
     1 \<le> cs \<and> cs \<le> 442 \<and> ws_holds buffer p (p - 1) (C cs) pr L"

lemma at_char_step:
  assumes at: "at_char buffer p cs pr L" and p: "p < length buffer" "p < 2 ^ 63"
  obtains (error) "t0_step ws_tables cs (schar (buffer ! p)) = Some (0, [])"
  | (move) cs' as pr' log where
      "t0_step ws_tables cs (schar (buffer ! p)) = Some (cs', as)" "cs' \<noteq> 0"
      "ws_acts buffer p as pr = (pr', log, cs' = 442)" "at_char buffer (p + 1) cs' pr' (L @ log)"
      "list_all (call_ok (length buffer - p)) log"
proof -
  have cs: "1 \<le> cs" "cs \<le> int (length ws_rows)" and h: "ws_holds buffer p (p - 1) (C cs) pr L"
    using at by (simp_all add: at_char_def ws_rows_length)
  obtain lo hi cs' as where step: "t0_step ws_tables cs (schar (buffer ! p)) = Some (cs', as)"
    and cell: "ws_cell C cs lo hi cs' as" and c: "lo \<le> schar (buffer ! p)" "schar (buffer ! p) \<le> hi"
    by (rule cells_ok_step [OF ws_rows_from cells cs])
  show thesis
  proof (cases "cs' = 0")
    case True
    then show thesis using cell step by (intro error) (simp add: ws_cell_def)
  next
    case False
    then obtain A where A: "abs_actions lo hi as (C cs) = Some A" "abs_le (abs_next lo hi A) (C cs')"
      and r: "1 \<le> cs'" "cs' \<le> 442" "(as \<noteq> [] \<and> last as = 27) = (cs' = 442)" "27 \<notin> set (butlast as)"
      using cell by (auto simp: ws_cell_def split: option.splits if_splits)
    have h': "ws_holds buffer p p (C cs) pr L" by (rule ws_holds_later [OF h]) simp
    obtain pr' log where acts: "ws_acts buffer p as pr = (pr', log, as \<noteq> [] \<and> last as = 27)"
      "ws_holds buffer p p A pr' (L @ log)" "list_all (call_ok (length buffer - p)) log"
      using ws_acts_sound [OF h' A(1) r(4) p c] by blast
    have "at_char buffer (p + 1) cs' pr' (L @ log)"
      using ws_holds_next [OF acts(2) A(2) c] r by (simp add: at_char_def)
    then show thesis using step False acts r by (intro move) simp_all
  qed
qed

lemma at_char_bounds: "at_char buffer p cs pr L \<Longrightarrow> ws_bounds (p - 1) pr"
  by (auto simp: at_char_def intro: holds_bounds)

text \<open>A run is over the characters of the buffer from \<open>p\<close> on.\<close>

lemma trace_sound:
  assumes "at_char buffer p cs pr L" and "take (length w) (drop p buffer) = w"
    and "length buffer < 2 ^ 63"
  shows "\<exists>cs' q pr' log. ws_trace buffer cs p w pr = Some (cs', q, pr', log) \<and>
    list_all (call_ok 1) log \<and> p \<le> q \<and> q \<le> p + length w \<and> ws_bounds (q - 1) pr' \<and>
    (cs' = 0 \<longrightarrow> q < p + length w) \<and>
    (cs' \<noteq> 0 \<longrightarrow> at_char buffer q cs' pr' (L @ log)) \<and>
    (cs' \<noteq> 0 \<and> cs' \<noteq> 442 \<longrightarrow> q = p + length w)"
  using assms(1,2)
proof (induction w arbitrary: p cs pr L)
  case Nil
  then show ?case using at_char_bounds [OF Nil.prems(1)] by (auto simp: at_char_def)
next
  case (Cons c w)
  have p: "p < length buffer" and c: "buffer ! p = c" and w: "take (length w) (drop (p + 1) buffer) = w"
    using take_drop_Cons [OF Cons.prems(2)] by simp_all
  have p63: "p < 2 ^ 63" using p assms(3) by simp
  have cs: "cs \<noteq> 0" using Cons.prems(1) by (simp add: at_char_def)
  from Cons.prems(1) p p63 show ?case
  proof (cases rule: at_char_step)
    case error
    then show ?thesis using cs c at_char_bounds [OF Cons.prems(1)] by simp
  next
    case (move cs' as pr' log)
    have ok: "list_all (call_ok 1) log" by (rule calls_ok_mono [OF move(5)]) (use p in simp)
    show ?thesis
    proof (cases "cs' = 442")
      case True
      then show ?thesis
        using move c cs ok at_char_bounds [OF move(4)] by (auto simp: at_char_def)
    next
      case False
      obtain cs'' q pr'' log' where r:
          "ws_trace buffer cs' (p + 1) w pr' = Some (cs'', q, pr'', log')"
          "list_all (call_ok 1) log'" "p + 1 \<le> q" "q \<le> p + 1 + length w" "ws_bounds (q - 1) pr''"
          "cs'' = 0 \<longrightarrow> q < p + 1 + length w"
          "cs'' \<noteq> 0 \<longrightarrow> at_char buffer q cs'' pr'' ((L @ log) @ log')"
          "cs'' \<noteq> 0 \<and> cs'' \<noteq> 442 \<longrightarrow> q = p + 1 + length w"
        using Cons.IH [OF move(4) w] by blast
      then show ?thesis using move c cs ok False by auto
    qed
  qed
qed

text \<open>The same run in another buffer that starts with the same \<open>N\<close> characters.\<close>

lemma trace_agree:
  assumes "at_char b1 p cs pr L" and "take (length w) (drop p b1) = w" and "length b1 < 2 ^ 63"
    and "take N b1 = take N b2" and "p + length w \<le> N" and "ws_trace b1 cs p w pr = Some (cs', q, pr', log)"
  shows "\<exists>log'. ws_trace b2 cs p w pr = Some (cs', q, pr', log') \<and> map view log' = map view log"
  using assms(1,2,5,6)
proof (induction w arbitrary: p cs pr L log)
  case (Cons c w)
  have p: "p < length b1" and c: "b1 ! p = c" and w: "take (length w) (drop (p + 1) b1) = w"
    using take_drop_Cons [OF Cons.prems(2)] by simp_all
  have p63: "p < 2 ^ 63" using p assms(3) by simp
  have N: "p < N" using Cons.prems(3) by simp
  have cs: "cs \<noteq> 0" using Cons.prems(1) by (simp add: at_char_def)
  from Cons.prems(1) p p63 show ?case
  proof (cases rule: at_char_step)
    case error
    then show ?thesis using cs c Cons.prems(4) by simp
  next
    case (move cs'' as pr'' log1)
    obtain log1' where log1': "ws_acts b2 p as pr = (pr'', log1', cs'' = 442)" "map view log1' = map view log1"
      using ws_acts_agree [OF assms(4) N p move(3,5)] by blast
    show ?thesis
    proof (cases "cs'' = 442")
      case True
      then show ?thesis using move c cs log1' Cons.prems(4) by auto
    next
      case False
      then obtain log2 where log2: "ws_trace b1 cs'' (p + 1) w pr'' = Some (cs', q, pr', log2)" "log = log1 @ log2"
        using move c cs Cons.prems(4) by (auto split: option.splits)
      have "\<exists>log'. ws_trace b2 cs'' (p + 1) w pr'' = Some (cs', q, pr', log') \<and> map view log' = map view log2"
        by (rule Cons.IH [OF move(4) w _ log2(1)]) (use Cons.prems(3) in simp)
      then show ?thesis using move c cs log1' log2 False by auto
    qed
  qed
qed simp

lemma ws_trace_append:
  "ws_trace buffer cs p v pr = Some (cs', p + length v, pr', log) \<Longrightarrow> cs' \<noteq> 0 \<Longrightarrow> cs' \<noteq> 442 \<Longrightarrow>
   at_char buffer p cs pr L \<Longrightarrow> take (length v) (drop p buffer) = v \<Longrightarrow> length buffer < 2 ^ 63 \<Longrightarrow>
   ws_trace buffer cs p (v @ w) pr =
     map_option (\<lambda>(cs'', q, pr'', log'). (cs'', q, pr'', log @ log'))
       (ws_trace buffer cs' (p + length v) w pr')"
proof (induction v arbitrary: p cs pr L log)
  case Nil
  then show ?case by (simp add: option.map_ident case_prod_unfold)
next
  case (Cons c v)
  have p: "p < length buffer" and c: "buffer ! p = c" and v: "take (length v) (drop (p + 1) buffer) = v"
    using take_drop_Cons [OF Cons.prems(5)] by simp_all
  have p63: "p < 2 ^ 63" using p Cons.prems(6) by simp
  have cs: "cs \<noteq> 0" using Cons.prems(4) by (simp add: at_char_def)
  from Cons.prems(4) p p63 show ?case
  proof (cases rule: at_char_step)
    case error
    then show ?thesis using cs c Cons.prems(1) by simp
  next
    case (move cs'' as pr'' log1)
    have "cs'' \<noteq> 442" using move c cs Cons.prems(1,3) by auto
    then obtain log2 where log2: "ws_trace buffer cs'' (p + 1) v pr'' = Some (cs', p + 1 + length v, pr', log2)"
        "log = log1 @ log2"
      using move c cs Cons.prems(1) by (auto split: option.splits)
    from Cons.IH [OF log2(1) Cons.prems(2,3) move(4) v Cons.prems(6)] show ?thesis
      using move c cs log2 \<open>cs'' \<noteq> 442\<close>
      by (cases "ws_trace buffer cs' (p + 1 + length v) w pr'") (auto split: prod.splits)
  qed
qed

end

end
