(* ===== verification/Ws_Http_Session.thy ===== *)
theory Ws_Http_Session
  imports Ws_Http_Run
begin

text \<open>
  A connection's use of the parser (lib/oversip/websocket/listeners/ws_server.rb): the bytes
  arrive in pieces, the buffer holds all of them, and each time \<open>execute\<close> is called on the whole
  buffer from where it stopped before, until the request is finished or in error.
\<close>

definition NUL :: string where
  "NUL = [CHR 0x00]"

fun ws_feed ::
  "'h ws_callbacks \<Rightarrow> string \<Rightarrow> string list \<Rightarrow> ws_http_request_parser \<Rightarrow> 'h \<Rightarrow>
   (ws_http_request_parser \<times> 'h) option" where
  "ws_feed cb seen [] pr h = Some (pr, h)"
| "ws_feed cb seen (c # cs) pr h =
     (if ws_http_request_parser_has_error pr \<or> ws_http_request_parser_is_finished pr then Some (pr, h)
      else
        (case ws_http_request_parser_execute cb pr h (seen @ c @ NUL) (length (seen @ c)) (w_nread pr) of
           None \<Rightarrow> None
         | Some (pr', h') \<Rightarrow> ws_feed cb (seen @ c) cs pr' h'))"

text \<open>What the parser is, apart from where the buffer of its last error was.\<close>

definition ws_result :: "ws_http_request_parser \<times> 'h \<Rightarrow> ws_http_request_parser \<times> 'h" where
  "ws_result s = (case s of (pr, h) \<Rightarrow> (pr\<lparr>w_error_start := None, w_error_len := 0\<rparr>, h))"

text \<open>A parser as \<open>execute\<close> leaves it.\<close>

definition ws_done ::
  "string \<Rightarrow> nat \<Rightarrow> nat \<Rightarrow> int \<Rightarrow> nat \<Rightarrow> ws_http_request_parser \<Rightarrow> ws_http_request_parser" where
  "ws_done buffer len off cs p pr =
     (let pr' = pr\<lparr>w_cs := cs, w_nread := w_nread pr + (p - off)\<rparr>
      in if ws_http_request_parser_has_error pr'
         then pr'\<lparr>w_error_start := Some buffer, w_error_len := len, w_error_pos := to_c_int (int p)\<rparr>
         else pr')"

lemma ws_action_keeps:
  "ws_action buffer a p pr = Set pr' out \<Longrightarrow>
   w_data pr' = w_data pr \<and> w_nread pr' = w_nread pr \<and> w_cs pr' = w_cs pr \<and>
   w_error_start pr' = w_error_start pr \<and> w_error_len pr' = w_error_len pr \<and>
   w_error_pos pr' = w_error_pos pr"
  by (auto simp: ws_action_def Let_def split: if_splits)

lemma ws_acts_nread: "ws_acts buffer p as pr = (pr', log, out) \<Longrightarrow> w_nread pr' = w_nread pr"
  by (induction as arbitrary: pr log out)
    (auto split: ws_effect.splits if_splits prod.splits dest: ws_action_keeps)

lemma ws_trace_nread: "ws_trace buffer cs p w pr = Some (cs', q, pr', log) \<Longrightarrow> w_nread pr' = w_nread pr"
  by (induction w arbitrary: cs p pr log)
    (fastforce split: option.splits prod.splits if_splits dest: ws_acts_nread)+

text \<open>A run that is over does not look at what follows.\<close>

context ws_certified
begin

lemma ws_trace_stop:
  "ws_trace buffer cs p v pr = Some (cs', q, pr', log) \<Longrightarrow> cs' = 0 \<or> cs' = 442 \<Longrightarrow> cs \<noteq> 442 \<Longrightarrow>
   at_char buffer p cs pr L \<Longrightarrow> take (length v) (drop p buffer) = v \<Longrightarrow> length buffer < 2 ^ 63 \<Longrightarrow>
   ws_trace buffer cs p (v @ w) pr = Some (cs', q, pr', log)"
proof (induction v arbitrary: p cs pr L log)
  case Nil
  then show ?case by (auto simp: at_char_def)
next
  case (Cons c v)
  have p: "p < length buffer" and c: "buffer ! p = c" and v: "take (length v) (drop (p + 1) buffer) = v"
    using take_drop_Cons [OF Cons.prems(5)] by simp_all
  have p63: "p < 2 ^ 63" using p Cons.prems(6) by simp
  have cs: "cs \<noteq> 0" using Cons.prems(4) by (simp add: at_char_def)
  from Cons.prems(4) p p63 show ?case
  proof (cases rule: at_char_step)
    case error
    then show ?thesis using cs c Cons.prems(1) by simp
  next
    case (move cs'' as pr'' log1)
    show ?thesis
    proof (cases "cs'' = 442")
      case True
      then show ?thesis using move c cs Cons.prems(1) by auto
    next
      case False
      then obtain log2 where log2: "ws_trace buffer cs'' (p + 1) v pr'' = Some (cs', q, pr', log2)"
          "log = log1 @ log2"
        using move c cs Cons.prems(1) by (auto split: option.splits)
      from Cons.IH [OF log2(1) Cons.prems(2) False move(4) v Cons.prems(6)] show ?thesis
        using move c cs log2 False by auto
    qed
  qed
qed

text \<open>The parser has read all of \<open>v\<close> and is in the middle of a request, after the calls \<open>L\<close>.\<close>

definition reading :: "string \<Rightarrow> ws_http_request_parser \<Rightarrow> ws_call list \<Rightarrow> bool" where
  "reading v pr L \<longleftrightarrow>
     at_char (v @ NUL) (length v) (w_cs pr) pr L \<and> w_nread pr = length v \<and> w_cs pr \<noteq> 442"

lemma at_char_longer:
  "at_char (v @ NUL) (length v) cs pr L \<Longrightarrow> at_char (v @ w) (length v) cs pr L"
  unfolding at_char_def using ws_holds_agree [of "length v" "v @ NUL" "v @ w" "length v"] by simp

lemma init_reading: "reading [] ((ws_http_request_parser_init pr)\<lparr>w_data := d\<rparr>) []"
  using start
  by (auto simp: reading_def at_char_def ws_holds_def ws_bounds_def ws_http_request_parser_init_def
      ws_http_request_parser_start_def)

text \<open>
  \<open>execute\<close> on a longer buffer: the run of the loop, and the replay of its calls; the assertions
  hold.
\<close>

lemma execute_run:
  assumes r: "reading v pr L" and c: "c \<noteq> []" and len: "length (v @ c @ NUL) < 2 ^ 63"
  obtains cs q pr' log where
    "ws_trace (v @ c @ NUL) (w_cs pr) (length v) c pr = Some (cs, q, pr', log)"
    "\<And>(cb :: 'h ws_callbacks) h. ws_http_request_parser_execute cb pr h (v @ c @ NUL) (length (v @ c)) (w_nread pr) =
       map_option (Pair (ws_done (v @ c @ NUL) (length (v @ c)) (length v) cs q pr'))
         (replay cb (w_data pr) log h)"
    "list_all (call_ok 1) log" "length v \<le> q" "q \<le> length (v @ c)" "w_data pr' = w_data pr"
    "w_nread pr' = length v"
    "cs = 0 \<or> cs = 442 \<or>
       cs \<noteq> 0 \<and> cs \<noteq> 442 \<and> q = length (v @ c) \<and>
       reading (v @ c) (ws_done (v @ c @ NUL) (length (v @ c)) (length v) cs q pr') (L @ log)"
    "cs \<noteq> 0 \<longrightarrow> at_char (v @ c @ NUL) q cs pr' (L @ log)"
    "cs = 0 \<longrightarrow> q < length (v @ c)"
proof -
  let ?b = "v @ c @ NUL"
  have at: "at_char ?b (length v) (w_cs pr) pr L" and n: "w_nread pr = length v" and "w_cs pr \<noteq> 442"
    using r at_char_longer unfolding reading_def by blast+
  have w: "take (length c) (drop (length v) ?b) = c" by simp
  obtain cs q pr' log where t: "ws_trace ?b (w_cs pr) (length v) c pr = Some (cs, q, pr', log)"
    and ok: "list_all (call_ok 1) log" and q: "length v \<le> q" "q \<le> length v + length c"
    and bd: "ws_bounds (q - 1) pr'" and err: "cs = 0 \<longrightarrow> q < length v + length c"
    and at': "cs \<noteq> 0 \<longrightarrow> at_char ?b q cs pr' (L @ log)"
    and full: "cs \<noteq> 0 \<and> cs \<noteq> 442 \<longrightarrow> q = length v + length c"
    using trace_sound [OF at w len] by blast
  have n': "w_nread pr' = length v" using ws_trace_nread [OF t] n by simp
  have "0 < length c" using c by simp
  then have lt: "q - 1 < length v + length c" using q by linarith
  have b: "w_mark pr' < length v + length c" "w_hdr_field_start pr' < length v + length c"
    "w_hdr_field_len pr' \<le> length v + length c" "w_hdr_value_start pr' < length v + length c"
    "w_hdr_value_len pr' \<le> length v + length c"
    using bd lt by (auto simp: ws_bounds_def)
  have ex: "ws_http_request_parser_execute cb pr h ?b (length (v @ c)) (w_nread pr) =
       map_option (Pair (ws_done ?b (length (v @ c)) (length v) cs q pr')) (replay cb (w_data pr) log h)"
    for cb :: "'h ws_callbacks" and h
    using b q n n' t
    by (cases "replay cb (w_data pr) log h")
      (simp_all add: ws_http_request_parser_execute_def t0_exec_replay NUL_def nth_append ws_done_def Let_def)
  have rd: "reading (v @ c) (ws_done ?b (length (v @ c)) (length v) cs q pr') (L @ log)"
    if "cs \<noteq> 0" "cs \<noteq> 442"
    using that at' full n' q
    by (simp add: reading_def ws_done_def at_char_def ws_http_request_parser_has_error_def
        ws_http_request_parser_error_def ws_holds_def ws_bounds_def Let_def)
  show thesis
    by (rule that [OF t ex ok q(1) _ ws_trace_data [OF t] n' _ at'])
      (use q full rd err in auto)
qed

end

subsection \<open>Callbacks\<close>

text \<open>
  What the parser asks of the functions it calls: on a proper call they look at the characters of
  the call's own slices only (and at the one after a number).
\<close>

locale ws_client =
  fixes cb :: "'h ws_callbacks" and d :: "rval option"
  assumes view: "call_ok 1 c \<Longrightarrow> cb d c h = cb d (view c) h"
begin

lemma replay_map_view: "list_all (call_ok 1) log \<Longrightarrow> replay cb d log h = replay cb d (map view log) h"
  by (induction log arbitrary: h) (auto simp: view split: option.split)

lemma replay_view:
  "list_all (call_ok 1) log \<Longrightarrow> list_all (call_ok 1) log' \<Longrightarrow> map view log' = map view log \<Longrightarrow>
   replay cb d log' h = replay cb d log h"
  by (metis replay_map_view)

end

text \<open>Callbacks that keep an invariant of their state return on every proper call.\<close>

locale ws_total_client = ws_client cb d
  for cb :: "'h ws_callbacks" and d :: "rval option" +
  fixes good :: "'h \<Rightarrow> bool"
  assumes total: "call_ok 1 c \<Longrightarrow> good h \<Longrightarrow> \<exists>h'. cb d c h = Some h' \<and> good h'"
begin

lemma replay_total: "list_all (call_ok 1) log \<Longrightarrow> good h \<Longrightarrow> \<exists>h'. replay cb d log h = Some h' \<and> good h'"
proof (induction log arbitrary: h)
  case (Cons c log)
  obtain h' where "cb d c h = Some h'" "good h'" using total [of c h] Cons.prems by auto
  then show ?case using Cons by simp
qed simp

end

text \<open>The fields of the struct that the actions do not use.\<close>

definition retag :: "int \<Rightarrow> nat \<Rightarrow> ws_http_request_parser \<Rightarrow> ws_http_request_parser" where
  "retag cs n pr = pr\<lparr>w_cs := cs, w_nread := n\<rparr>"

lemma ws_action_retag:
  "ws_action buffer a p (retag cs n pr) =
     (case ws_action buffer a p pr of Set pr' out \<Rightarrow> Set (retag cs n pr') out | Call c \<Rightarrow> Call c)"
  by (simp add: ws_action_def retag_def Let_def split: if_split)

lemma ws_acts_retag:
  "ws_acts buffer p as (retag cs n pr) =
     (case ws_acts buffer p as pr of (pr', log, out) \<Rightarrow> (retag cs n pr', log, out))"
  by (induction as arbitrary: pr)
    (simp_all add: ws_action_retag split: ws_effect.split prod.split)

lemma ws_trace_retag:
  "ws_trace buffer s p w (retag cs n pr) =
     map_option (\<lambda>(s', q, pr', log). (s', q, retag cs n pr', log)) (ws_trace buffer s p w pr)"
proof (induction w arbitrary: s p pr)
  case (Cons c w)
  show ?case
    by (auto simp: ws_acts_retag Cons.IH option.map_comp o_def case_prod_unfold
        split: option.split prod.split)
qed simp

subsection \<open>One piece or many\<close>

locale ws_parsing = ws_certified C + ws_client cb d
  for C :: "int \<Rightarrow> ws_abs" and cb :: "'h ws_callbacks" and d :: "rval option"
begin

lemma execute_split:
  assumes r: "reading v pr L" and d: "w_data pr = d" and c: "c \<noteq> []" and w: "w \<noteq> []"
    and len: "length (v @ c @ w @ NUL) < 2 ^ 63"
  shows "map_option ws_result
      (ws_http_request_parser_execute cb pr h (v @ (c @ w) @ NUL) (length (v @ (c @ w))) (w_nread pr)) =
    (case ws_http_request_parser_execute cb pr h (v @ c @ NUL) (length (v @ c)) (w_nread pr) of
       None \<Rightarrow> None
     | Some (pr1, h1) \<Rightarrow>
         if ws_http_request_parser_has_error pr1 \<or> ws_http_request_parser_is_finished pr1
         then Some (ws_result (pr1, h1))
         else map_option ws_result
           (ws_http_request_parser_execute cb pr1 h1 ((v @ c) @ w @ NUL) (length ((v @ c) @ w)) (w_nread pr1)))"
proof -
  let ?b1 = "v @ c @ NUL" and ?b = "v @ (c @ w) @ NUL"
  have len1: "length ?b1 < 2 ^ 63" and len2: "length ?b < 2 ^ 63"
    and len3: "length ((v @ c) @ w @ NUL) < 2 ^ 63" and cw: "c @ w \<noteq> []"
    using len c by simp_all
  have at1: "at_char ?b1 (length v) (w_cs pr) pr L" and at2: "at_char ?b (length v) (w_cs pr) pr L"
    and n: "w_nread pr = length v" and cs0: "w_cs pr \<noteq> 442" "w_cs pr \<noteq> 0"
    using r at_char_longer [of v "w_cs pr" pr L] unfolding reading_def by (auto simp: at_char_def)
  have w1: "take (length c) (drop (length v) ?b1) = c" and w2: "take (length c) (drop (length v) ?b) = c"
    by simp_all
  have agree: "take (length v + length c) ?b1 = take (length v + length c) ?b" by simp
  obtain cs q pr' log where t1: "ws_trace ?b1 (w_cs pr) (length v) c pr = Some (cs, q, pr', log)"
    and ex1: "\<And>(cb :: 'h ws_callbacks) h. ws_http_request_parser_execute cb pr h ?b1 (length (v @ c)) (w_nread pr) =
       map_option (Pair (ws_done ?b1 (length (v @ c)) (length v) cs q pr')) (replay cb (w_data pr) log h)"
    and ok1: "list_all (call_ok 1) log" and dat: "w_data pr' = w_data pr" and n': "w_nread pr' = length v"
    and q1: "length v \<le> q"
    and res: "cs = 0 \<or> cs = 442 \<or> cs \<noteq> 0 \<and> cs \<noteq> 442 \<and> q = length (v @ c) \<and>
       reading (v @ c) (ws_done ?b1 (length (v @ c)) (length v) cs q pr') (L @ log)"
    by (rule execute_run [OF r c len1]) (rule that)
  obtain log' where t1': "ws_trace ?b (w_cs pr) (length v) c pr = Some (cs, q, pr', log')"
    and v1: "map view log' = map view log"
    using trace_agree [OF at1 w1 len1 agree _ t1] by auto
  obtain cs2 q2 pr2 log2 where t2: "ws_trace ?b (w_cs pr) (length v) (c @ w) pr = Some (cs2, q2, pr2, log2)"
    and ex2: "\<And>(cb :: 'h ws_callbacks) h. ws_http_request_parser_execute cb pr h ?b (length (v @ (c @ w))) (w_nread pr) =
       map_option (Pair (ws_done ?b (length (v @ (c @ w))) (length v) cs2 q2 pr2)) (replay cb (w_data pr) log2 h)"
    and ok2: "list_all (call_ok 1) log2" and n2: "w_nread pr2 = length v"
    by (rule execute_run [OF r cw len2]) (rule that)
  show ?thesis
  proof (cases "cs = 0 \<or> cs = 442")
    case True
    have "ws_trace ?b (w_cs pr) (length v) (c @ w) pr = Some (cs, q, pr', log')"
      by (rule ws_trace_stop [OF t1' True cs0(1) at2 w2 len2])
    then have same: "cs2 = cs" "q2 = q" "pr2 = pr'" "log2 = log'" using t2 by simp_all
    have "replay cb (w_data pr) log2 h = replay cb (w_data pr) log h"
      using replay_view [OF ok1 ok2] v1 same d by simp
    then show ?thesis
      using True unfolding ex1 ex2 same
      by (cases "replay cb (w_data pr) log h")
        (auto simp: ws_result_def ws_done_def Let_def ws_http_request_parser_has_error_def
          ws_http_request_parser_is_finished_def ws_http_request_parser_error_def
          ws_http_request_parser_first_final_def)
  next
    case False
    then have q: "q = length (v @ c)"
      and r1: "reading (v @ c) (ws_done ?b1 (length (v @ c)) (length v) cs q pr') (L @ log)"
      using res by blast+
    have done1: "ws_done ?b1 (length (v @ c)) (length v) cs q pr' = retag cs (length (v @ c)) pr'"
      using False n' q by (simp add: ws_done_def retag_def ws_http_request_parser_has_error_def
          ws_http_request_parser_error_def Let_def)
    let ?pr1 = "retag cs (length (v @ c)) pr'"
    obtain cs3 q3 pr3 log3 where
        t3: "ws_trace ((v @ c) @ w @ NUL) (w_cs ?pr1) (length (v @ c)) w ?pr1 = Some (cs3, q3, pr3, log3)"
      and ex3: "\<And>(cb :: 'h ws_callbacks) h. ws_http_request_parser_execute cb ?pr1 h ((v @ c) @ w @ NUL) (length ((v @ c) @ w)) (w_nread ?pr1) =
       map_option (Pair (ws_done ((v @ c) @ w @ NUL) (length ((v @ c) @ w)) (length (v @ c)) cs3 q3 pr3))
         (replay cb (w_data ?pr1) log3 h)"
      and ok3: "list_all (call_ok 1) log3" and q3: "length (v @ c) \<le> q3" and n3: "w_nread pr3 = length (v @ c)"
      by (rule execute_run [OF r1 [unfolded done1] w len3]) (rule that)
    have "ws_trace ?b cs (length v + length c) w ?pr1 = Some (cs3, q3, pr3, log3)"
      using t3 by (simp add: retag_def)
    then obtain pr4 where t4: "ws_trace ?b cs (length v + length c) w pr' = Some (cs3, q3, pr4, log3)"
      and pr4: "pr3 = retag cs (length (v @ c)) pr4"
      by (auto simp: ws_trace_retag)
    have "ws_trace ?b (w_cs pr) (length v) (c @ w) pr = Some (cs3, q3, pr4, log' @ log3)"
      using ws_trace_append [OF _ _ _ at2 w2 len2, of cs pr' log' w] t1' q False t4 by simp
    then have same: "cs2 = cs3" "q2 = q3" "pr2 = pr4" "log2 = log' @ log3" using t2 by simp_all
    have rep: "replay cb (w_data pr) log2 h =
        (case replay cb (w_data pr) log h of None \<Rightarrow> None | Some h1 \<Rightarrow> replay cb (w_data pr) log3 h1)"
    proof -
      have "list_all (call_ok 1) log'" using ok2 same by simp
      then have "replay cb (w_data pr) log' h = replay cb (w_data pr) log h"
        using replay_view [OF ok1 _ v1] d by simp
      then show ?thesis by (simp add: same replay_append)
    qed
    have fin: "ws_result (ws_done ?b (length (v @ (c @ w))) (length v) cs2 q2 pr2, h2) =
        ws_result (ws_done ((v @ c) @ w @ NUL) (length ((v @ c) @ w)) (length (v @ c)) cs3 q3 pr3, h2)" for h2 :: 'h
      using same n2 n3 q1 q q3 unfolding pr4
      by (simp add: ws_result_def ws_done_def retag_def ws_http_request_parser_has_error_def Let_def)
    have nstop: "\<not> (ws_http_request_parser_has_error ?pr1 \<or> ws_http_request_parser_is_finished ?pr1)"
      using False by (simp add: ws_http_request_parser_has_error_def ws_http_request_parser_is_finished_def
          ws_http_request_parser_error_def ws_http_request_parser_first_final_def retag_def)
    have dat1: "w_data ?pr1 = w_data pr" using dat by (simp add: retag_def)
    show ?thesis
      unfolding ex1 ex2 done1 rep
      using nstop ex3 dat1 fin
      by (cases "replay cb (w_data pr) log h")
        (auto simp: option.map_comp o_def split: option.split)
  qed
qed

lemma feed_one_shot:
  assumes "reading v pr L" and "w_data pr = d" and "cs \<noteq> []" and "[] \<notin> set cs"
    and "length (v @ concat cs @ NUL) < 2 ^ 63"
  shows "map_option ws_result (ws_feed cb v cs pr h) =
    map_option ws_result
      (ws_http_request_parser_execute cb pr h (v @ concat cs @ NUL) (length (v @ concat cs)) (w_nread pr))"
  using assms
proof (induction cs arbitrary: v pr L h)
  case (Cons c cs)
  have c: "c \<noteq> []" and len1: "length (v @ c @ NUL) < 2 ^ 63" using Cons.prems by auto
  have go: "\<not> (ws_http_request_parser_has_error pr \<or> ws_http_request_parser_is_finished pr)"
    using Cons.prems(1) by (auto simp: reading_def at_char_def ws_http_request_parser_has_error_def
        ws_http_request_parser_is_finished_def ws_http_request_parser_error_def
        ws_http_request_parser_first_final_def)
  show ?case
  proof (cases "cs = []")
    case True
    then show ?thesis using go by (auto split: option.split)
  next
    case False
    have w: "concat cs \<noteq> []" using False Cons.prems(4) by (cases cs) auto
    obtain ws q pr' log where
        ex: "\<And>(cb :: 'h ws_callbacks) h. ws_http_request_parser_execute cb pr h (v @ c @ NUL) (length (v @ c)) (w_nread pr) =
          map_option (Pair (ws_done (v @ c @ NUL) (length (v @ c)) (length v) ws q pr'))
            (replay cb (w_data pr) log h)"
      and dat: "w_data pr' = w_data pr"
      and res: "ws = 0 \<or> ws = 442 \<or> ws \<noteq> 0 \<and> ws \<noteq> 442 \<and> q = length (v @ c) \<and>
       reading (v @ c) (ws_done (v @ c @ NUL) (length (v @ c)) (length v) ws q pr') (L @ log)"
      by (rule execute_run [OF Cons.prems(1) c len1]) (rule that)
    let ?pr1 = "ws_done (v @ c @ NUL) (length (v @ c)) (length v) ws q pr'"
    have dat1: "w_data ?pr1 = d" using dat Cons.prems(2) by (simp add: ws_done_def Let_def)
    have IH: "map_option ws_result (ws_feed cb (v @ c) cs ?pr1 h1) =
        map_option ws_result (ws_http_request_parser_execute cb ?pr1 h1 ((v @ c) @ concat cs @ NUL)
          (length ((v @ c) @ concat cs)) (w_nread ?pr1))" if "ws \<noteq> 0" "ws \<noteq> 442" for h1
      by (rule Cons.IH) (use that res dat1 False Cons.prems(4,5) in auto)
    have stop: "ws_feed cb (v @ c) cs ?pr1 h1 = Some (?pr1, h1)" if "ws = 0 \<or> ws = 442" for h1
      using that False by (cases cs) (auto simp: ws_done_def Let_def ws_http_request_parser_has_error_def
          ws_http_request_parser_is_finished_def ws_http_request_parser_error_def
          ws_http_request_parser_first_final_def)
    have cs1: "w_cs ?pr1 = ws" by (simp add: ws_done_def Let_def)
    have len: "length (v @ c @ concat cs @ NUL) < 2 ^ 63" using Cons.prems(5) by simp
    have split: "map_option ws_result (ws_http_request_parser_execute cb pr h (v @ concat (c # cs) @ NUL)
          (length (v @ concat (c # cs))) (w_nread pr)) =
        (case map_option (Pair ?pr1) (replay cb (w_data pr) log h) of
           None \<Rightarrow> None
         | Some (pr1, h1) \<Rightarrow>
             if ws_http_request_parser_has_error pr1 \<or> ws_http_request_parser_is_finished pr1
             then Some (ws_result (pr1, h1))
             else map_option ws_result (ws_http_request_parser_execute cb pr1 h1
               ((v @ c) @ concat cs @ NUL) (length ((v @ c) @ concat cs)) (w_nread pr1)))"
      using execute_split [OF Cons.prems(1,2) c w len, of h] unfolding ex by simp
    have feed: "ws_feed cb v (c # cs) pr h =
        (case map_option (Pair ?pr1) (replay cb (w_data pr) log h) of
           None \<Rightarrow> None
         | Some (pr1, h1) \<Rightarrow> ws_feed cb (v @ c) cs pr1 h1)"
      using go by (simp only: ws_feed.simps ex if_False)
    show ?thesis
      unfolding split feed using stop IH cs1
      by (cases "replay cb (w_data pr) log h")
        (auto simp: ws_http_request_parser_has_error_def ws_http_request_parser_is_finished_def
          ws_http_request_parser_error_def ws_http_request_parser_first_final_def)
  qed
qed simp

end

end
