(* ===== verification/Ws_Http_Certificate.thy ===== *)
theory Ws_Http_Certificate
  imports Ws_Http_Session
begin

text \<open>
  The certificate for the arrays of ext/websocket_http_parser/ws_http_parser.c: the abstract
  state of each of the 442 states (there are 18 different ones), thirty states at a time, and the
  check of every cell.
\<close>

definition ws_fact :: "bool \<times> bool \<times> int \<times> bool \<times> int list \<Rightarrow> ws_abs" where
  "ws_fact x =
     (case x of (f, v, d, l, qs) \<Rightarrow>
        \<lparr>field_ok = f, value_ok = v, digits = d, mark_here = False, mark_lt = l, phases = qs\<rparr>)"

definition ws_kinds :: "ws_abs list" where
  "ws_kinds = map ws_fact
    [(True, True, 0, False, [0]),
     (True, True, 0, True, [0]),
     (True, True, 0, True, [1]),
     (True, True, 0, True, [5]),
     (True, True, 0, True, [6]),
     (False, True, 0, True, [6]),
     (True, False, 0, True, [6]),
     (True, False, 3, True, [6]),
     (True, False, 1, True, [6]),
     (True, False, 2, True, [6]),
     (True, False, 5, True, [6]),
     (True, False, 4, True, [6]),
     (True, False, 6, True, [6]),
     (True, False, 7, True, [6]),
     (True, False, 8, True, [6]),
     (True, False, 9, True, [6]),
     (True, True, 0, True, [2, 3]),
     (True, True, 0, True, [2])]"

text \<open>The kind of each state.\<close>

definition ws_kinds_1 :: "int list" where
  "ws_kinds_1 =
    [0, 1, 2, 2, 3, 3, 3, 3, 3, 3, 3, 3, 3, 4, 4, 4, 5, 4, 6, 6, 4, 4, 5, 5, 5, 5, 5, 5, 5, 5]"

definition ws_kinds_2 :: "int list" where
  "ws_kinds_2 =
    [5, 5, 4, 4, 4, 4, 4, 6, 6, 6, 6, 6, 6, 6, 6, 6, 4, 4, 5, 5, 5, 5, 4, 4, 4, 4, 4, 7, 6, 6]"

definition ws_kinds_3 :: "int list" where
  "ws_kinds_3 =
    [6, 6, 6, 6, 6, 8, 9, 7, 10, 11, 7, 8, 9, 8, 9, 7, 11, 6, 6, 6, 6, 6, 6, 6, 6, 6, 6, 6, 6,
     6]"

definition ws_kinds_4 :: "int list" where
  "ws_kinds_4 =
    [6, 6, 6, 6, 6, 8, 9, 8, 9, 6, 6, 6, 6, 6, 6, 6, 6, 6, 6, 6, 6, 6, 6, 6, 6, 6, 6, 6, 6, 6]"

definition ws_kinds_5 :: "int list" where
  "ws_kinds_5 =
    [6, 6, 6, 6, 6, 6, 6, 6, 6, 6, 6, 6, 6, 6, 6, 6, 6, 6, 6, 6, 6, 6, 6, 6, 6, 6, 6, 6, 6, 6]"

definition ws_kinds_6 :: "int list" where
  "ws_kinds_6 =
    [6, 6, 6, 6, 6, 6, 6, 6, 6, 6, 6, 6, 6, 6, 6, 6, 6, 6, 6, 6, 6, 6, 6, 6, 6, 6, 6, 6, 6, 6]"

definition ws_kinds_7 :: "int list" where
  "ws_kinds_7 =
    [6, 6, 6, 6, 6, 6, 6, 6, 6, 6, 6, 6, 6, 6, 6, 6, 6, 6, 6, 6, 6, 6, 6, 6, 6, 6, 6, 6, 6, 6]"

definition ws_kinds_8 :: "int list" where
  "ws_kinds_8 =
    [6, 6, 6, 6, 6, 6, 6, 6, 6, 6, 6, 6, 6, 6, 6, 6, 6, 6, 6, 6, 6, 6, 6, 6, 6, 6, 6, 6, 6, 6]"

definition ws_kinds_9 :: "int list" where
  "ws_kinds_9 =
    [6, 6, 6, 6, 6, 6, 6, 6, 6, 6, 6, 5, 5, 5, 5, 5, 5, 4, 4, 4, 4, 4, 6, 5, 5, 5, 5, 5, 5, 5]"

definition ws_kinds_10 :: "int list" where
  "ws_kinds_10 =
    [5, 5, 5, 5, 5, 5, 5, 5, 5, 5, 4, 4, 4, 4, 4, 6, 6, 6, 6, 6, 6, 6, 6, 6, 6, 6, 6, 6, 6, 6]"

definition ws_kinds_11 :: "int list" where
  "ws_kinds_11 =
    [6, 6, 6, 6, 6, 6, 6, 6, 6, 6, 6, 6, 6, 6, 6, 6, 6, 6, 6, 6, 6, 6, 6, 6, 6, 6, 6, 6, 6, 6]"

definition ws_kinds_12 :: "int list" where
  "ws_kinds_12 =
    [6, 6, 6, 6, 6, 5, 5, 5, 5, 5, 5, 5, 5, 4, 4, 4, 4, 4, 6, 6, 6, 6, 6, 6, 6, 6, 6, 4, 4, 5]"

definition ws_kinds_13 :: "int list" where
  "ws_kinds_13 =
    [5, 5, 5, 5, 5, 5, 4, 4, 4, 4, 4, 6, 5, 5, 5, 5, 5, 5, 5, 4, 4, 4, 4, 4, 8, 9, 7, 5, 5, 5]"

definition ws_kinds_14 :: "int list" where
  "ws_kinds_14 =
    [5, 5, 5, 5, 5, 5, 5, 5, 4, 4, 4, 4, 4, 8, 9, 7, 11, 10, 12, 13, 14, 15, 4, 4, 6, 3, 3,
     16, 16, 16]"

definition ws_kinds_15 :: "int list" where
  "ws_kinds_15 =
    [16, 2, 2, 17, 17, 17, 17, 1, 1, 1, 1, 1, 1, 1, 1, 1, 1, 1, 1, 1, 1, 4]"

definition ws_kind_blocks :: "int list list" where
  "ws_kind_blocks =
    [ws_kinds_1, ws_kinds_2, ws_kinds_3, ws_kinds_4, ws_kinds_5, ws_kinds_6,
     ws_kinds_7, ws_kinds_8, ws_kinds_9, ws_kinds_10, ws_kinds_11, ws_kinds_12,
     ws_kinds_13, ws_kinds_14, ws_kinds_15]"

definition ws_certificate :: "int \<Rightarrow> ws_abs" where
  "ws_certificate cs = ws_kinds ! nat (ws_kind_blocks ! nat ((cs - 1) div 30) ! nat ((cs - 1) mod 30))"

lemma ws_kind_nth:
  "ws_kinds ! 0 = ws_fact (True, True, 0, False, [0])"
  "ws_kinds ! Suc 0 = ws_fact (True, True, 0, True, [0])"
  "ws_kinds ! 2 = ws_fact (True, True, 0, True, [1])"
  "ws_kinds ! 3 = ws_fact (True, True, 0, True, [5])"
  "ws_kinds ! 4 = ws_fact (True, True, 0, True, [6])"
  "ws_kinds ! 5 = ws_fact (False, True, 0, True, [6])"
  "ws_kinds ! 6 = ws_fact (True, False, 0, True, [6])"
  "ws_kinds ! 7 = ws_fact (True, False, 3, True, [6])"
  "ws_kinds ! 8 = ws_fact (True, False, 1, True, [6])"
  "ws_kinds ! 9 = ws_fact (True, False, 2, True, [6])"
  "ws_kinds ! 10 = ws_fact (True, False, 5, True, [6])"
  "ws_kinds ! 11 = ws_fact (True, False, 4, True, [6])"
  "ws_kinds ! 12 = ws_fact (True, False, 6, True, [6])"
  "ws_kinds ! 13 = ws_fact (True, False, 7, True, [6])"
  "ws_kinds ! 14 = ws_fact (True, False, 8, True, [6])"
  "ws_kinds ! 15 = ws_fact (True, False, 9, True, [6])"
  "ws_kinds ! 16 = ws_fact (True, True, 0, True, [2, 3])"
  "ws_kinds ! 17 = ws_fact (True, True, 0, True, [2])"
  by (simp_all add: ws_kinds_def)

lemma ws_certificate_1:
  "ws_certificate 1 = ws_fact (True, True, 0, False, [0])"
  "ws_certificate 2 = ws_fact (True, True, 0, True, [0])"
  "ws_certificate 3 = ws_fact (True, True, 0, True, [1])"
  "ws_certificate 4 = ws_fact (True, True, 0, True, [1])"
  "ws_certificate 5 = ws_fact (True, True, 0, True, [5])"
  "ws_certificate 6 = ws_fact (True, True, 0, True, [5])"
  "ws_certificate 7 = ws_fact (True, True, 0, True, [5])"
  "ws_certificate 8 = ws_fact (True, True, 0, True, [5])"
  "ws_certificate 9 = ws_fact (True, True, 0, True, [5])"
  "ws_certificate 10 = ws_fact (True, True, 0, True, [5])"
  "ws_certificate 11 = ws_fact (True, True, 0, True, [5])"
  "ws_certificate 12 = ws_fact (True, True, 0, True, [5])"
  "ws_certificate 13 = ws_fact (True, True, 0, True, [5])"
  "ws_certificate 14 = ws_fact (True, True, 0, True, [6])"
  "ws_certificate 15 = ws_fact (True, True, 0, True, [6])"
  "ws_certificate 16 = ws_fact (True, True, 0, True, [6])"
  "ws_certificate 17 = ws_fact (False, True, 0, True, [6])"
  "ws_certificate 18 = ws_fact (True, True, 0, True, [6])"
  "ws_certificate 19 = ws_fact (True, False, 0, True, [6])"
  "ws_certificate 20 = ws_fact (True, False, 0, True, [6])"
  "ws_certificate 21 = ws_fact (True, True, 0, True, [6])"
  "ws_certificate 22 = ws_fact (True, True, 0, True, [6])"
  "ws_certificate 23 = ws_fact (False, True, 0, True, [6])"
  "ws_certificate 24 = ws_fact (False, True, 0, True, [6])"
  "ws_certificate 25 = ws_fact (False, True, 0, True, [6])"
  "ws_certificate 26 = ws_fact (False, True, 0, True, [6])"
  "ws_certificate 27 = ws_fact (False, True, 0, True, [6])"
  "ws_certificate 28 = ws_fact (False, True, 0, True, [6])"
  "ws_certificate 29 = ws_fact (False, True, 0, True, [6])"
  "ws_certificate 30 = ws_fact (False, True, 0, True, [6])"
  by (simp_all add: ws_certificate_def ws_kind_blocks_def ws_kinds_1_def ws_kind_nth)

lemma ws_certificate_2:
  "ws_certificate 31 = ws_fact (False, True, 0, True, [6])"
  "ws_certificate 32 = ws_fact (False, True, 0, True, [6])"
  "ws_certificate 33 = ws_fact (True, True, 0, True, [6])"
  "ws_certificate 34 = ws_fact (True, True, 0, True, [6])"
  "ws_certificate 35 = ws_fact (True, True, 0, True, [6])"
  "ws_certificate 36 = ws_fact (True, True, 0, True, [6])"
  "ws_certificate 37 = ws_fact (True, True, 0, True, [6])"
  "ws_certificate 38 = ws_fact (True, False, 0, True, [6])"
  "ws_certificate 39 = ws_fact (True, False, 0, True, [6])"
  "ws_certificate 40 = ws_fact (True, False, 0, True, [6])"
  "ws_certificate 41 = ws_fact (True, False, 0, True, [6])"
  "ws_certificate 42 = ws_fact (True, False, 0, True, [6])"
  "ws_certificate 43 = ws_fact (True, False, 0, True, [6])"
  "ws_certificate 44 = ws_fact (True, False, 0, True, [6])"
  "ws_certificate 45 = ws_fact (True, False, 0, True, [6])"
  "ws_certificate 46 = ws_fact (True, False, 0, True, [6])"
  "ws_certificate 47 = ws_fact (True, True, 0, True, [6])"
  "ws_certificate 48 = ws_fact (True, True, 0, True, [6])"
  "ws_certificate 49 = ws_fact (False, True, 0, True, [6])"
  "ws_certificate 50 = ws_fact (False, True, 0, True, [6])"
  "ws_certificate 51 = ws_fact (False, True, 0, True, [6])"
  "ws_certificate 52 = ws_fact (False, True, 0, True, [6])"
  "ws_certificate 53 = ws_fact (True, True, 0, True, [6])"
  "ws_certificate 54 = ws_fact (True, True, 0, True, [6])"
  "ws_certificate 55 = ws_fact (True, True, 0, True, [6])"
  "ws_certificate 56 = ws_fact (True, True, 0, True, [6])"
  "ws_certificate 57 = ws_fact (True, True, 0, True, [6])"
  "ws_certificate 58 = ws_fact (True, False, 3, True, [6])"
  "ws_certificate 59 = ws_fact (True, False, 0, True, [6])"
  "ws_certificate 60 = ws_fact (True, False, 0, True, [6])"
  by (simp_all add: ws_certificate_def ws_kind_blocks_def ws_kinds_2_def ws_kind_nth)

lemma ws_certificate_3:
  "ws_certificate 61 = ws_fact (True, False, 0, True, [6])"
  "ws_certificate 62 = ws_fact (True, False, 0, True, [6])"
  "ws_certificate 63 = ws_fact (True, False, 0, True, [6])"
  "ws_certificate 64 = ws_fact (True, False, 0, True, [6])"
  "ws_certificate 65 = ws_fact (True, False, 0, True, [6])"
  "ws_certificate 66 = ws_fact (True, False, 1, True, [6])"
  "ws_certificate 67 = ws_fact (True, False, 2, True, [6])"
  "ws_certificate 68 = ws_fact (True, False, 3, True, [6])"
  "ws_certificate 69 = ws_fact (True, False, 5, True, [6])"
  "ws_certificate 70 = ws_fact (True, False, 4, True, [6])"
  "ws_certificate 71 = ws_fact (True, False, 3, True, [6])"
  "ws_certificate 72 = ws_fact (True, False, 1, True, [6])"
  "ws_certificate 73 = ws_fact (True, False, 2, True, [6])"
  "ws_certificate 74 = ws_fact (True, False, 1, True, [6])"
  "ws_certificate 75 = ws_fact (True, False, 2, True, [6])"
  "ws_certificate 76 = ws_fact (True, False, 3, True, [6])"
  "ws_certificate 77 = ws_fact (True, False, 4, True, [6])"
  "ws_certificate 78 = ws_fact (True, False, 0, True, [6])"
  "ws_certificate 79 = ws_fact (True, False, 0, True, [6])"
  "ws_certificate 80 = ws_fact (True, False, 0, True, [6])"
  "ws_certificate 81 = ws_fact (True, False, 0, True, [6])"
  "ws_certificate 82 = ws_fact (True, False, 0, True, [6])"
  "ws_certificate 83 = ws_fact (True, False, 0, True, [6])"
  "ws_certificate 84 = ws_fact (True, False, 0, True, [6])"
  "ws_certificate 85 = ws_fact (True, False, 0, True, [6])"
  "ws_certificate 86 = ws_fact (True, False, 0, True, [6])"
  "ws_certificate 87 = ws_fact (True, False, 0, True, [6])"
  "ws_certificate 88 = ws_fact (True, False, 0, True, [6])"
  "ws_certificate 89 = ws_fact (True, False, 0, True, [6])"
  "ws_certificate 90 = ws_fact (True, False, 0, True, [6])"
  by (simp_all add: ws_certificate_def ws_kind_blocks_def ws_kinds_3_def ws_kind_nth)

lemma ws_certificate_4:
  "ws_certificate 91 = ws_fact (True, False, 0, True, [6])"
  "ws_certificate 92 = ws_fact (True, False, 0, True, [6])"
  "ws_certificate 93 = ws_fact (True, False, 0, True, [6])"
  "ws_certificate 94 = ws_fact (True, False, 0, True, [6])"
  "ws_certificate 95 = ws_fact (True, False, 0, True, [6])"
  "ws_certificate 96 = ws_fact (True, False, 1, True, [6])"
  "ws_certificate 97 = ws_fact (True, False, 2, True, [6])"
  "ws_certificate 98 = ws_fact (True, False, 1, True, [6])"
  "ws_certificate 99 = ws_fact (True, False, 2, True, [6])"
  "ws_certificate 100 = ws_fact (True, False, 0, True, [6])"
  "ws_certificate 101 = ws_fact (True, False, 0, True, [6])"
  "ws_certificate 102 = ws_fact (True, False, 0, True, [6])"
  "ws_certificate 103 = ws_fact (True, False, 0, True, [6])"
  "ws_certificate 104 = ws_fact (True, False, 0, True, [6])"
  "ws_certificate 105 = ws_fact (True, False, 0, True, [6])"
  "ws_certificate 106 = ws_fact (True, False, 0, True, [6])"
  "ws_certificate 107 = ws_fact (True, False, 0, True, [6])"
  "ws_certificate 108 = ws_fact (True, False, 0, True, [6])"
  "ws_certificate 109 = ws_fact (True, False, 0, True, [6])"
  "ws_certificate 110 = ws_fact (True, False, 0, True, [6])"
  "ws_certificate 111 = ws_fact (True, False, 0, True, [6])"
  "ws_certificate 112 = ws_fact (True, False, 0, True, [6])"
  "ws_certificate 113 = ws_fact (True, False, 0, True, [6])"
  "ws_certificate 114 = ws_fact (True, False, 0, True, [6])"
  "ws_certificate 115 = ws_fact (True, False, 0, True, [6])"
  "ws_certificate 116 = ws_fact (True, False, 0, True, [6])"
  "ws_certificate 117 = ws_fact (True, False, 0, True, [6])"
  "ws_certificate 118 = ws_fact (True, False, 0, True, [6])"
  "ws_certificate 119 = ws_fact (True, False, 0, True, [6])"
  "ws_certificate 120 = ws_fact (True, False, 0, True, [6])"
  by (simp_all add: ws_certificate_def ws_kind_blocks_def ws_kinds_4_def ws_kind_nth)

lemma ws_certificate_5:
  "ws_certificate 121 = ws_fact (True, False, 0, True, [6])"
  "ws_certificate 122 = ws_fact (True, False, 0, True, [6])"
  "ws_certificate 123 = ws_fact (True, False, 0, True, [6])"
  "ws_certificate 124 = ws_fact (True, False, 0, True, [6])"
  "ws_certificate 125 = ws_fact (True, False, 0, True, [6])"
  "ws_certificate 126 = ws_fact (True, False, 0, True, [6])"
  "ws_certificate 127 = ws_fact (True, False, 0, True, [6])"
  "ws_certificate 128 = ws_fact (True, False, 0, True, [6])"
  "ws_certificate 129 = ws_fact (True, False, 0, True, [6])"
  "ws_certificate 130 = ws_fact (True, False, 0, True, [6])"
  "ws_certificate 131 = ws_fact (True, False, 0, True, [6])"
  "ws_certificate 132 = ws_fact (True, False, 0, True, [6])"
  "ws_certificate 133 = ws_fact (True, False, 0, True, [6])"
  "ws_certificate 134 = ws_fact (True, False, 0, True, [6])"
  "ws_certificate 135 = ws_fact (True, False, 0, True, [6])"
  "ws_certificate 136 = ws_fact (True, False, 0, True, [6])"
  "ws_certificate 137 = ws_fact (True, False, 0, True, [6])"
  "ws_certificate 138 = ws_fact (True, False, 0, True, [6])"
  "ws_certificate 139 = ws_fact (True, False, 0, True, [6])"
  "ws_certificate 140 = ws_fact (True, False, 0, True, [6])"
  "ws_certificate 141 = ws_fact (True, False, 0, True, [6])"
  "ws_certificate 142 = ws_fact (True, False, 0, True, [6])"
  "ws_certificate 143 = ws_fact (True, False, 0, True, [6])"
  "ws_certificate 144 = ws_fact (True, False, 0, True, [6])"
  "ws_certificate 145 = ws_fact (True, False, 0, True, [6])"
  "ws_certificate 146 = ws_fact (True, False, 0, True, [6])"
  "ws_certificate 147 = ws_fact (True, False, 0, True, [6])"
  "ws_certificate 148 = ws_fact (True, False, 0, True, [6])"
  "ws_certificate 149 = ws_fact (True, False, 0, True, [6])"
  "ws_certificate 150 = ws_fact (True, False, 0, True, [6])"
  by (simp_all add: ws_certificate_def ws_kind_blocks_def ws_kinds_5_def ws_kind_nth)

lemma ws_certificate_6:
  "ws_certificate 151 = ws_fact (True, False, 0, True, [6])"
  "ws_certificate 152 = ws_fact (True, False, 0, True, [6])"
  "ws_certificate 153 = ws_fact (True, False, 0, True, [6])"
  "ws_certificate 154 = ws_fact (True, False, 0, True, [6])"
  "ws_certificate 155 = ws_fact (True, False, 0, True, [6])"
  "ws_certificate 156 = ws_fact (True, False, 0, True, [6])"
  "ws_certificate 157 = ws_fact (True, False, 0, True, [6])"
  "ws_certificate 158 = ws_fact (True, False, 0, True, [6])"
  "ws_certificate 159 = ws_fact (True, False, 0, True, [6])"
  "ws_certificate 160 = ws_fact (True, False, 0, True, [6])"
  "ws_certificate 161 = ws_fact (True, False, 0, True, [6])"
  "ws_certificate 162 = ws_fact (True, False, 0, True, [6])"
  "ws_certificate 163 = ws_fact (True, False, 0, True, [6])"
  "ws_certificate 164 = ws_fact (True, False, 0, True, [6])"
  "ws_certificate 165 = ws_fact (True, False, 0, True, [6])"
  "ws_certificate 166 = ws_fact (True, False, 0, True, [6])"
  "ws_certificate 167 = ws_fact (True, False, 0, True, [6])"
  "ws_certificate 168 = ws_fact (True, False, 0, True, [6])"
  "ws_certificate 169 = ws_fact (True, False, 0, True, [6])"
  "ws_certificate 170 = ws_fact (True, False, 0, True, [6])"
  "ws_certificate 171 = ws_fact (True, False, 0, True, [6])"
  "ws_certificate 172 = ws_fact (True, False, 0, True, [6])"
  "ws_certificate 173 = ws_fact (True, False, 0, True, [6])"
  "ws_certificate 174 = ws_fact (True, False, 0, True, [6])"
  "ws_certificate 175 = ws_fact (True, False, 0, True, [6])"
  "ws_certificate 176 = ws_fact (True, False, 0, True, [6])"
  "ws_certificate 177 = ws_fact (True, False, 0, True, [6])"
  "ws_certificate 178 = ws_fact (True, False, 0, True, [6])"
  "ws_certificate 179 = ws_fact (True, False, 0, True, [6])"
  "ws_certificate 180 = ws_fact (True, False, 0, True, [6])"
  by (simp_all add: ws_certificate_def ws_kind_blocks_def ws_kinds_6_def ws_kind_nth)

lemma ws_certificate_7:
  "ws_certificate 181 = ws_fact (True, False, 0, True, [6])"
  "ws_certificate 182 = ws_fact (True, False, 0, True, [6])"
  "ws_certificate 183 = ws_fact (True, False, 0, True, [6])"
  "ws_certificate 184 = ws_fact (True, False, 0, True, [6])"
  "ws_certificate 185 = ws_fact (True, False, 0, True, [6])"
  "ws_certificate 186 = ws_fact (True, False, 0, True, [6])"
  "ws_certificate 187 = ws_fact (True, False, 0, True, [6])"
  "ws_certificate 188 = ws_fact (True, False, 0, True, [6])"
  "ws_certificate 189 = ws_fact (True, False, 0, True, [6])"
  "ws_certificate 190 = ws_fact (True, False, 0, True, [6])"
  "ws_certificate 191 = ws_fact (True, False, 0, True, [6])"
  "ws_certificate 192 = ws_fact (True, False, 0, True, [6])"
  "ws_certificate 193 = ws_fact (True, False, 0, True, [6])"
  "ws_certificate 194 = ws_fact (True, False, 0, True, [6])"
  "ws_certificate 195 = ws_fact (True, False, 0, True, [6])"
  "ws_certificate 196 = ws_fact (True, False, 0, True, [6])"
  "ws_certificate 197 = ws_fact (True, False, 0, True, [6])"
  "ws_certificate 198 = ws_fact (True, False, 0, True, [6])"
  "ws_certificate 199 = ws_fact (True, False, 0, True, [6])"
  "ws_certificate 200 = ws_fact (True, False, 0, True, [6])"
  "ws_certificate 201 = ws_fact (True, False, 0, True, [6])"
  "ws_certificate 202 = ws_fact (True, False, 0, True, [6])"
  "ws_certificate 203 = ws_fact (True, False, 0, True, [6])"
  "ws_certificate 204 = ws_fact (True, False, 0, True, [6])"
  "ws_certificate 205 = ws_fact (True, False, 0, True, [6])"
  "ws_certificate 206 = ws_fact (True, False, 0, True, [6])"
  "ws_certificate 207 = ws_fact (True, False, 0, True, [6])"
  "ws_certificate 208 = ws_fact (True, False, 0, True, [6])"
  "ws_certificate 209 = ws_fact (True, False, 0, True, [6])"
  "ws_certificate 210 = ws_fact (True, False, 0, True, [6])"
  by (simp_all add: ws_certificate_def ws_kind_blocks_def ws_kinds_7_def ws_kind_nth)

lemma ws_certificate_8:
  "ws_certificate 211 = ws_fact (True, False, 0, True, [6])"
  "ws_certificate 212 = ws_fact (True, False, 0, True, [6])"
  "ws_certificate 213 = ws_fact (True, False, 0, True, [6])"
  "ws_certificate 214 = ws_fact (True, False, 0, True, [6])"
  "ws_certificate 215 = ws_fact (True, False, 0, True, [6])"
  "ws_certificate 216 = ws_fact (True, False, 0, True, [6])"
  "ws_certificate 217 = ws_fact (True, False, 0, True, [6])"
  "ws_certificate 218 = ws_fact (True, False, 0, True, [6])"
  "ws_certificate 219 = ws_fact (True, False, 0, True, [6])"
  "ws_certificate 220 = ws_fact (True, False, 0, True, [6])"
  "ws_certificate 221 = ws_fact (True, False, 0, True, [6])"
  "ws_certificate 222 = ws_fact (True, False, 0, True, [6])"
  "ws_certificate 223 = ws_fact (True, False, 0, True, [6])"
  "ws_certificate 224 = ws_fact (True, False, 0, True, [6])"
  "ws_certificate 225 = ws_fact (True, False, 0, True, [6])"
  "ws_certificate 226 = ws_fact (True, False, 0, True, [6])"
  "ws_certificate 227 = ws_fact (True, False, 0, True, [6])"
  "ws_certificate 228 = ws_fact (True, False, 0, True, [6])"
  "ws_certificate 229 = ws_fact (True, False, 0, True, [6])"
  "ws_certificate 230 = ws_fact (True, False, 0, True, [6])"
  "ws_certificate 231 = ws_fact (True, False, 0, True, [6])"
  "ws_certificate 232 = ws_fact (True, False, 0, True, [6])"
  "ws_certificate 233 = ws_fact (True, False, 0, True, [6])"
  "ws_certificate 234 = ws_fact (True, False, 0, True, [6])"
  "ws_certificate 235 = ws_fact (True, False, 0, True, [6])"
  "ws_certificate 236 = ws_fact (True, False, 0, True, [6])"
  "ws_certificate 237 = ws_fact (True, False, 0, True, [6])"
  "ws_certificate 238 = ws_fact (True, False, 0, True, [6])"
  "ws_certificate 239 = ws_fact (True, False, 0, True, [6])"
  "ws_certificate 240 = ws_fact (True, False, 0, True, [6])"
  by (simp_all add: ws_certificate_def ws_kind_blocks_def ws_kinds_8_def ws_kind_nth)

lemma ws_certificate_9:
  "ws_certificate 241 = ws_fact (True, False, 0, True, [6])"
  "ws_certificate 242 = ws_fact (True, False, 0, True, [6])"
  "ws_certificate 243 = ws_fact (True, False, 0, True, [6])"
  "ws_certificate 244 = ws_fact (True, False, 0, True, [6])"
  "ws_certificate 245 = ws_fact (True, False, 0, True, [6])"
  "ws_certificate 246 = ws_fact (True, False, 0, True, [6])"
  "ws_certificate 247 = ws_fact (True, False, 0, True, [6])"
  "ws_certificate 248 = ws_fact (True, False, 0, True, [6])"
  "ws_certificate 249 = ws_fact (True, False, 0, True, [6])"
  "ws_certificate 250 = ws_fact (True, False, 0, True, [6])"
  "ws_certificate 251 = ws_fact (True, False, 0, True, [6])"
  "ws_certificate 252 = ws_fact (False, True, 0, True, [6])"
  "ws_certificate 253 = ws_fact (False, True, 0, True, [6])"
  "ws_certificate 254 = ws_fact (False, True, 0, True, [6])"
  "ws_certificate 255 = ws_fact (False, True, 0, True, [6])"
  "ws_certificate 256 = ws_fact (False, True, 0, True, [6])"
  "ws_certificate 257 = ws_fact (False, True, 0, True, [6])"
  "ws_certificate 258 = ws_fact (True, True, 0, True, [6])"
  "ws_certificate 259 = ws_fact (True, True, 0, True, [6])"
  "ws_certificate 260 = ws_fact (True, True, 0, True, [6])"
  "ws_certificate 261 = ws_fact (True, True, 0, True, [6])"
  "ws_certificate 262 = ws_fact (True, True, 0, True, [6])"
  "ws_certificate 263 = ws_fact (True, False, 0, True, [6])"
  "ws_certificate 264 = ws_fact (False, True, 0, True, [6])"
  "ws_certificate 265 = ws_fact (False, True, 0, True, [6])"
  "ws_certificate 266 = ws_fact (False, True, 0, True, [6])"
  "ws_certificate 267 = ws_fact (False, True, 0, True, [6])"
  "ws_certificate 268 = ws_fact (False, True, 0, True, [6])"
  "ws_certificate 269 = ws_fact (False, True, 0, True, [6])"
  "ws_certificate 270 = ws_fact (False, True, 0, True, [6])"
  by (simp_all add: ws_certificate_def ws_kind_blocks_def ws_kinds_9_def ws_kind_nth)

lemma ws_certificate_10:
  "ws_certificate 271 = ws_fact (False, True, 0, True, [6])"
  "ws_certificate 272 = ws_fact (False, True, 0, True, [6])"
  "ws_certificate 273 = ws_fact (False, True, 0, True, [6])"
  "ws_certificate 274 = ws_fact (False, True, 0, True, [6])"
  "ws_certificate 275 = ws_fact (False, True, 0, True, [6])"
  "ws_certificate 276 = ws_fact (False, True, 0, True, [6])"
  "ws_certificate 277 = ws_fact (False, True, 0, True, [6])"
  "ws_certificate 278 = ws_fact (False, True, 0, True, [6])"
  "ws_certificate 279 = ws_fact (False, True, 0, True, [6])"
  "ws_certificate 280 = ws_fact (False, True, 0, True, [6])"
  "ws_certificate 281 = ws_fact (True, True, 0, True, [6])"
  "ws_certificate 282 = ws_fact (True, True, 0, True, [6])"
  "ws_certificate 283 = ws_fact (True, True, 0, True, [6])"
  "ws_certificate 284 = ws_fact (True, True, 0, True, [6])"
  "ws_certificate 285 = ws_fact (True, True, 0, True, [6])"
  "ws_certificate 286 = ws_fact (True, False, 0, True, [6])"
  "ws_certificate 287 = ws_fact (True, False, 0, True, [6])"
  "ws_certificate 288 = ws_fact (True, False, 0, True, [6])"
  "ws_certificate 289 = ws_fact (True, False, 0, True, [6])"
  "ws_certificate 290 = ws_fact (True, False, 0, True, [6])"
  "ws_certificate 291 = ws_fact (True, False, 0, True, [6])"
  "ws_certificate 292 = ws_fact (True, False, 0, True, [6])"
  "ws_certificate 293 = ws_fact (True, False, 0, True, [6])"
  "ws_certificate 294 = ws_fact (True, False, 0, True, [6])"
  "ws_certificate 295 = ws_fact (True, False, 0, True, [6])"
  "ws_certificate 296 = ws_fact (True, False, 0, True, [6])"
  "ws_certificate 297 = ws_fact (True, False, 0, True, [6])"
  "ws_certificate 298 = ws_fact (True, False, 0, True, [6])"
  "ws_certificate 299 = ws_fact (True, False, 0, True, [6])"
  "ws_certificate 300 = ws_fact (True, False, 0, True, [6])"
  by (simp_all add: ws_certificate_def ws_kind_blocks_def ws_kinds_10_def ws_kind_nth)

lemma ws_certificate_11:
  "ws_certificate 301 = ws_fact (True, False, 0, True, [6])"
  "ws_certificate 302 = ws_fact (True, False, 0, True, [6])"
  "ws_certificate 303 = ws_fact (True, False, 0, True, [6])"
  "ws_certificate 304 = ws_fact (True, False, 0, True, [6])"
  "ws_certificate 305 = ws_fact (True, False, 0, True, [6])"
  "ws_certificate 306 = ws_fact (True, False, 0, True, [6])"
  "ws_certificate 307 = ws_fact (True, False, 0, True, [6])"
  "ws_certificate 308 = ws_fact (True, False, 0, True, [6])"
  "ws_certificate 309 = ws_fact (True, False, 0, True, [6])"
  "ws_certificate 310 = ws_fact (True, False, 0, True, [6])"
  "ws_certificate 311 = ws_fact (True, False, 0, True, [6])"
  "ws_certificate 312 = ws_fact (True, False, 0, True, [6])"
  "ws_certificate 313 = ws_fact (True, False, 0, True, [6])"
  "ws_certificate 314 = ws_fact (True, False, 0, True, [6])"
  "ws_certificate 315 = ws_fact (True, False, 0, True, [6])"
  "ws_certificate 316 = ws_fact (True, False, 0, True, [6])"
  "ws_certificate 317 = ws_fact (True, False, 0, True, [6])"
  "ws_certificate 318 = ws_fact (True, False, 0, True, [6])"
  "ws_certificate 319 = ws_fact (True, False, 0, True, [6])"
  "ws_certificate 320 = ws_fact (True, False, 0, True, [6])"
  "ws_certificate 321 = ws_fact (True, False, 0, True, [6])"
  "ws_certificate 322 = ws_fact (True, False, 0, True, [6])"
  "ws_certificate 323 = ws_fact (True, False, 0, True, [6])"
  "ws_certificate 324 = ws_fact (True, False, 0, True, [6])"
  "ws_certificate 325 = ws_fact (True, False, 0, True, [6])"
  "ws_certificate 326 = ws_fact (True, False, 0, True, [6])"
  "ws_certificate 327 = ws_fact (True, False, 0, True, [6])"
  "ws_certificate 328 = ws_fact (True, False, 0, True, [6])"
  "ws_certificate 329 = ws_fact (True, False, 0, True, [6])"
  "ws_certificate 330 = ws_fact (True, False, 0, True, [6])"
  by (simp_all add: ws_certificate_def ws_kind_blocks_def ws_kinds_11_def ws_kind_nth)

lemma ws_certificate_12:
  "ws_certificate 331 = ws_fact (True, False, 0, True, [6])"
  "ws_certificate 332 = ws_fact (True, False, 0, True, [6])"
  "ws_certificate 333 = ws_fact (True, False, 0, True, [6])"
  "ws_certificate 334 = ws_fact (True, False, 0, True, [6])"
  "ws_certificate 335 = ws_fact (True, False, 0, True, [6])"
  "ws_certificate 336 = ws_fact (False, True, 0, True, [6])"
  "ws_certificate 337 = ws_fact (False, True, 0, True, [6])"
  "ws_certificate 338 = ws_fact (False, True, 0, True, [6])"
  "ws_certificate 339 = ws_fact (False, True, 0, True, [6])"
  "ws_certificate 340 = ws_fact (False, True, 0, True, [6])"
  "ws_certificate 341 = ws_fact (False, True, 0, True, [6])"
  "ws_certificate 342 = ws_fact (False, True, 0, True, [6])"
  "ws_certificate 343 = ws_fact (False, True, 0, True, [6])"
  "ws_certificate 344 = ws_fact (True, True, 0, True, [6])"
  "ws_certificate 345 = ws_fact (True, True, 0, True, [6])"
  "ws_certificate 346 = ws_fact (True, True, 0, True, [6])"
  "ws_certificate 347 = ws_fact (True, True, 0, True, [6])"
  "ws_certificate 348 = ws_fact (True, True, 0, True, [6])"
  "ws_certificate 349 = ws_fact (True, False, 0, True, [6])"
  "ws_certificate 350 = ws_fact (True, False, 0, True, [6])"
  "ws_certificate 351 = ws_fact (True, False, 0, True, [6])"
  "ws_certificate 352 = ws_fact (True, False, 0, True, [6])"
  "ws_certificate 353 = ws_fact (True, False, 0, True, [6])"
  "ws_certificate 354 = ws_fact (True, False, 0, True, [6])"
  "ws_certificate 355 = ws_fact (True, False, 0, True, [6])"
  "ws_certificate 356 = ws_fact (True, False, 0, True, [6])"
  "ws_certificate 357 = ws_fact (True, False, 0, True, [6])"
  "ws_certificate 358 = ws_fact (True, True, 0, True, [6])"
  "ws_certificate 359 = ws_fact (True, True, 0, True, [6])"
  "ws_certificate 360 = ws_fact (False, True, 0, True, [6])"
  by (simp_all add: ws_certificate_def ws_kind_blocks_def ws_kinds_12_def ws_kind_nth)

lemma ws_certificate_13:
  "ws_certificate 361 = ws_fact (False, True, 0, True, [6])"
  "ws_certificate 362 = ws_fact (False, True, 0, True, [6])"
  "ws_certificate 363 = ws_fact (False, True, 0, True, [6])"
  "ws_certificate 364 = ws_fact (False, True, 0, True, [6])"
  "ws_certificate 365 = ws_fact (False, True, 0, True, [6])"
  "ws_certificate 366 = ws_fact (False, True, 0, True, [6])"
  "ws_certificate 367 = ws_fact (True, True, 0, True, [6])"
  "ws_certificate 368 = ws_fact (True, True, 0, True, [6])"
  "ws_certificate 369 = ws_fact (True, True, 0, True, [6])"
  "ws_certificate 370 = ws_fact (True, True, 0, True, [6])"
  "ws_certificate 371 = ws_fact (True, True, 0, True, [6])"
  "ws_certificate 372 = ws_fact (True, False, 0, True, [6])"
  "ws_certificate 373 = ws_fact (False, True, 0, True, [6])"
  "ws_certificate 374 = ws_fact (False, True, 0, True, [6])"
  "ws_certificate 375 = ws_fact (False, True, 0, True, [6])"
  "ws_certificate 376 = ws_fact (False, True, 0, True, [6])"
  "ws_certificate 377 = ws_fact (False, True, 0, True, [6])"
  "ws_certificate 378 = ws_fact (False, True, 0, True, [6])"
  "ws_certificate 379 = ws_fact (False, True, 0, True, [6])"
  "ws_certificate 380 = ws_fact (True, True, 0, True, [6])"
  "ws_certificate 381 = ws_fact (True, True, 0, True, [6])"
  "ws_certificate 382 = ws_fact (True, True, 0, True, [6])"
  "ws_certificate 383 = ws_fact (True, True, 0, True, [6])"
  "ws_certificate 384 = ws_fact (True, True, 0, True, [6])"
  "ws_certificate 385 = ws_fact (True, False, 1, True, [6])"
  "ws_certificate 386 = ws_fact (True, False, 2, True, [6])"
  "ws_certificate 387 = ws_fact (True, False, 3, True, [6])"
  "ws_certificate 388 = ws_fact (False, True, 0, True, [6])"
  "ws_certificate 389 = ws_fact (False, True, 0, True, [6])"
  "ws_certificate 390 = ws_fact (False, True, 0, True, [6])"
  by (simp_all add: ws_certificate_def ws_kind_blocks_def ws_kinds_13_def ws_kind_nth)

lemma ws_certificate_14:
  "ws_certificate 391 = ws_fact (False, True, 0, True, [6])"
  "ws_certificate 392 = ws_fact (False, True, 0, True, [6])"
  "ws_certificate 393 = ws_fact (False, True, 0, True, [6])"
  "ws_certificate 394 = ws_fact (False, True, 0, True, [6])"
  "ws_certificate 395 = ws_fact (False, True, 0, True, [6])"
  "ws_certificate 396 = ws_fact (False, True, 0, True, [6])"
  "ws_certificate 397 = ws_fact (False, True, 0, True, [6])"
  "ws_certificate 398 = ws_fact (False, True, 0, True, [6])"
  "ws_certificate 399 = ws_fact (True, True, 0, True, [6])"
  "ws_certificate 400 = ws_fact (True, True, 0, True, [6])"
  "ws_certificate 401 = ws_fact (True, True, 0, True, [6])"
  "ws_certificate 402 = ws_fact (True, True, 0, True, [6])"
  "ws_certificate 403 = ws_fact (True, True, 0, True, [6])"
  "ws_certificate 404 = ws_fact (True, False, 1, True, [6])"
  "ws_certificate 405 = ws_fact (True, False, 2, True, [6])"
  "ws_certificate 406 = ws_fact (True, False, 3, True, [6])"
  "ws_certificate 407 = ws_fact (True, False, 4, True, [6])"
  "ws_certificate 408 = ws_fact (True, False, 5, True, [6])"
  "ws_certificate 409 = ws_fact (True, False, 6, True, [6])"
  "ws_certificate 410 = ws_fact (True, False, 7, True, [6])"
  "ws_certificate 411 = ws_fact (True, False, 8, True, [6])"
  "ws_certificate 412 = ws_fact (True, False, 9, True, [6])"
  "ws_certificate 413 = ws_fact (True, True, 0, True, [6])"
  "ws_certificate 414 = ws_fact (True, True, 0, True, [6])"
  "ws_certificate 415 = ws_fact (True, False, 0, True, [6])"
  "ws_certificate 416 = ws_fact (True, True, 0, True, [5])"
  "ws_certificate 417 = ws_fact (True, True, 0, True, [5])"
  "ws_certificate 418 = ws_fact (True, True, 0, True, [2, 3])"
  "ws_certificate 419 = ws_fact (True, True, 0, True, [2, 3])"
  "ws_certificate 420 = ws_fact (True, True, 0, True, [2, 3])"
  by (simp_all add: ws_certificate_def ws_kind_blocks_def ws_kinds_14_def ws_kind_nth)

lemma ws_certificate_15:
  "ws_certificate 421 = ws_fact (True, True, 0, True, [2, 3])"
  "ws_certificate 422 = ws_fact (True, True, 0, True, [1])"
  "ws_certificate 423 = ws_fact (True, True, 0, True, [1])"
  "ws_certificate 424 = ws_fact (True, True, 0, True, [2])"
  "ws_certificate 425 = ws_fact (True, True, 0, True, [2])"
  "ws_certificate 426 = ws_fact (True, True, 0, True, [2])"
  "ws_certificate 427 = ws_fact (True, True, 0, True, [2])"
  "ws_certificate 428 = ws_fact (True, True, 0, True, [0])"
  "ws_certificate 429 = ws_fact (True, True, 0, True, [0])"
  "ws_certificate 430 = ws_fact (True, True, 0, True, [0])"
  "ws_certificate 431 = ws_fact (True, True, 0, True, [0])"
  "ws_certificate 432 = ws_fact (True, True, 0, True, [0])"
  "ws_certificate 433 = ws_fact (True, True, 0, True, [0])"
  "ws_certificate 434 = ws_fact (True, True, 0, True, [0])"
  "ws_certificate 435 = ws_fact (True, True, 0, True, [0])"
  "ws_certificate 436 = ws_fact (True, True, 0, True, [0])"
  "ws_certificate 437 = ws_fact (True, True, 0, True, [0])"
  "ws_certificate 438 = ws_fact (True, True, 0, True, [0])"
  "ws_certificate 439 = ws_fact (True, True, 0, True, [0])"
  "ws_certificate 440 = ws_fact (True, True, 0, True, [0])"
  "ws_certificate 441 = ws_fact (True, True, 0, True, [0])"
  "ws_certificate 442 = ws_fact (True, True, 0, True, [6])"
  by (simp_all add: ws_certificate_def ws_kind_blocks_def ws_kinds_15_def ws_kind_nth)

lemmas ws_certificates =
  ws_certificate_1 ws_certificate_2 ws_certificate_3 ws_certificate_4 ws_certificate_5
  ws_certificate_6 ws_certificate_7 ws_certificate_8 ws_certificate_9 ws_certificate_10
  ws_certificate_11 ws_certificate_12 ws_certificate_13 ws_certificate_14 ws_certificate_15

text \<open>The rules the cells are evaluated with.\<close>

lemmas ws_cell_eval = ws_cell_def abs_action_def abs_call_def phase_at_def blank_def abs_next_def
  abs_le_def ws_fact_def

lemma ws_cells_1: "cells_ok (ws_cell ws_certificate) 1 ws_rows_1"
  by (simp add: ws_rows_1_def ws_certificates ws_cell_eval)

lemma ws_cells_2: "cells_ok (ws_cell ws_certificate) 31 ws_rows_2"
  by (simp add: ws_rows_2_def ws_certificates ws_cell_eval)

lemma ws_cells_3: "cells_ok (ws_cell ws_certificate) 61 ws_rows_3"
  by (simp add: ws_rows_3_def ws_certificates ws_cell_eval)

lemma ws_cells_4: "cells_ok (ws_cell ws_certificate) 91 ws_rows_4"
  by (simp add: ws_rows_4_def ws_certificates ws_cell_eval)

lemma ws_cells_5: "cells_ok (ws_cell ws_certificate) 121 ws_rows_5"
  by (simp add: ws_rows_5_def ws_certificates ws_cell_eval)

lemma ws_cells_6: "cells_ok (ws_cell ws_certificate) 151 ws_rows_6"
  by (simp add: ws_rows_6_def ws_certificates ws_cell_eval)

lemma ws_cells_7: "cells_ok (ws_cell ws_certificate) 181 ws_rows_7"
  by (simp add: ws_rows_7_def ws_certificates ws_cell_eval)

lemma ws_cells_8: "cells_ok (ws_cell ws_certificate) 211 ws_rows_8"
  by (simp add: ws_rows_8_def ws_certificates ws_cell_eval)

lemma ws_cells_9: "cells_ok (ws_cell ws_certificate) 241 ws_rows_9"
  by (simp add: ws_rows_9_def ws_certificates ws_cell_eval)

lemma ws_cells_10: "cells_ok (ws_cell ws_certificate) 271 ws_rows_10"
  by (simp add: ws_rows_10_def ws_certificates ws_cell_eval)

lemma ws_cells_11: "cells_ok (ws_cell ws_certificate) 301 ws_rows_11"
  by (simp add: ws_rows_11_def ws_certificates ws_cell_eval)

lemma ws_cells_12: "cells_ok (ws_cell ws_certificate) 331 ws_rows_12"
  by (simp add: ws_rows_12_def ws_certificates ws_cell_eval)

lemma ws_cells_13: "cells_ok (ws_cell ws_certificate) 361 ws_rows_13"
  by (simp add: ws_rows_13_def ws_certificates ws_cell_eval)

lemma ws_cells_14: "cells_ok (ws_cell ws_certificate) 391 ws_rows_14"
  by (simp add: ws_rows_14_def ws_certificates ws_cell_eval)

lemma ws_cells_15: "cells_ok (ws_cell ws_certificate) 421 ws_rows_15"
  by (simp add: ws_rows_15_def ws_certificates ws_cell_eval)

lemmas ws_cells =
  ws_cells_1 ws_cells_2 ws_cells_3 ws_cells_4 ws_cells_5 ws_cells_6 ws_cells_7 ws_cells_8
  ws_cells_9 ws_cells_10 ws_cells_11 ws_cells_12 ws_cells_13 ws_cells_14 ws_cells_15

lemma ws_all_cells: "cells_ok (ws_cell ws_certificate) 1 ws_rows"
  unfolding ws_rows_def
  by ((rule cells_ok_append, rule ws_cells, simp add: ws_row_lengths)+, rule ws_cells_15)

interpretation ws: ws_certified ws_certificate
proof
  show "cells_ok (ws_cell ws_certificate) 1 ws_rows" by (rule ws_all_cells)
qed (simp_all add: ws_certificates ws_fact_def)

end
