(* ===== verification/Ruby_Request.thy ===== *)
theory Ruby_Request
  imports Ruby_Heap
begin

text \<open>
  The object a parser fills: a Hash of the header fields, each with an Array of its values, whose
  instance variables hold Strings, numbers and Symbols, or an Array.  What a reader of the object
  sees is a list of names with their values and a function of the variables; the two ways the
  callbacks have of adding a value to an Array are adding it there, as long as every Array has
  one owner.
\<close>

subsection \<open>Adding a value\<close>

text \<open>A value of a Hash whose values are Arrays, made when the first one of its key comes.\<close>

definition hash_push :: "rval \<Rightarrow> ruby_value \<Rightarrow> rval \<Rightarrow> heap \<Rightarrow> heap option" where
  "hash_push parsed f v h = do {
     el \<leftarrow> rb_hash_lookup parsed f h;
     (if is_T_ARRAY el h then rb_ary_push el v h
      else case rb_ary_new [v] h of (h, a) \<Rightarrow> rb_hash_aset parsed f a h)
   }"

text \<open>A list of values in an instance variable.\<close>

definition ivar_push :: "rval \<Rightarrow> string \<Rightarrow> rval \<Rightarrow> heap \<Rightarrow> heap option" where
  "ivar_push parsed x v h = do {
     array \<leftarrow> rb_ivar_get parsed x h;
     (if is_T_ARRAY array h then rb_ary_push array v h
      else case rb_ary_new [v] h of (h, a) \<Rightarrow> rb_ivar_set parsed x a h)
   }"

subsection \<open>What a reader sees\<close>

fun imm :: "rval \<Rightarrow> ruby_value" where
  "imm (Imm x) = x"
| "imm (Ref a) = Qnil"

datatype attr_value = Single ruby_value | Values "ruby_value list"

definition read_value :: "heap \<Rightarrow> rval \<Rightarrow> attr_value" where
  "read_value h r = (case ary_of r h of Some vs \<Rightarrow> Values (map imm vs) | None \<Rightarrow> Single (imm r))"

definition values_of :: "heap \<Rightarrow> rval \<Rightarrow> ruby_value list" where
  "values_of h r = (case ary_of r h of Some vs \<Rightarrow> map imm vs | None \<Rightarrow> [])"

definition attribute :: "rval \<Rightarrow> heap \<Rightarrow> string \<Rightarrow> attr_value" where
  "attribute v h x = (case rb_ivar_get v x h of Some r \<Rightarrow> read_value h r | None \<Rightarrow> Single Qnil)"

definition field_list :: "rval \<Rightarrow> heap \<Rightarrow> (ruby_value \<times> ruby_value list) list" where
  "field_list v h = (case hash_of v h of Some kvs \<Rightarrow> map (\<lambda>(k, r). (k, values_of h r)) kvs | None \<Rightarrow> [])"

record request_view =
  rq_fields :: "(ruby_value \<times> ruby_value list) list"
  rq_attr :: "string \<Rightarrow> attr_value"

definition view_of :: "rval \<Rightarrow> heap \<Rightarrow> request_view" where
  "view_of v h = \<lparr>rq_fields = field_list v h, rq_attr = attribute v h\<rparr>"

definition empty_view :: request_view where
  "empty_view = \<lparr>rq_fields = [], rq_attr = (\<lambda>x. Single Qnil)\<rparr>"

fun snoc :: "attr_value \<Rightarrow> ruby_value \<Rightarrow> attr_value" where
  "snoc (Values vs) v = Values (vs @ [v])"
| "snoc (Single u) v = Values [v]"

definition add_field :: "ruby_value \<Rightarrow> ruby_value \<Rightarrow> request_view \<Rightarrow> request_view" where
  "add_field k v rq = rq\<lparr>rq_fields := mm_add k v (rq_fields rq)\<rparr>"

definition set_attr :: "string \<Rightarrow> attr_value \<Rightarrow> request_view \<Rightarrow> request_view" where
  "set_attr x v rq = rq\<lparr>rq_attr := (rq_attr rq)(x := v)\<rparr>"

definition push_attr :: "string \<Rightarrow> ruby_value \<Rightarrow> request_view \<Rightarrow> request_view" where
  "push_attr x v rq = set_attr x (snoc (rq_attr rq x) v) rq"

text \<open>
  The Arrays of a request belong to one field or one variable each, and no variable dangles.
\<close>

definition owns :: "rval \<Rightarrow> heap \<Rightarrow> (ruby_value \<times> rval) list \<Rightarrow> bool" where
  "owns v h kvs \<longleftrightarrow>
     hash_of v h = Some kvs \<and> (\<forall>k r. (k, r) \<in> set kvs \<longrightarrow> ary_of r h \<noteq> None) \<and> distinct (map snd kvs) \<and>
     (\<forall>x r. rb_ivar_get v x h = Some r \<longrightarrow> allocated r h) \<and>
     (\<forall>x r k. rb_ivar_get v x h = Some r \<and> ary_of r h \<noteq> None \<longrightarrow> (k, r) \<notin> set kvs) \<and>
     (\<forall>x y r. rb_ivar_get v x h = Some r \<and> rb_ivar_get v y h = Some r \<and> ary_of r h \<noteq> None \<longrightarrow> x = y)"

definition own_arrays :: "rval \<Rightarrow> heap \<Rightarrow> bool" where
  "own_arrays v h \<longleftrightarrow> (\<exists>kvs. owns v h kvs)"

lemma new_request:
  assumes "rb_new (new_robj c (HashB [])) h = (h', v)"
  shows "own_arrays v h'" "view_of v h' = empty_view"
proof -
  have g: "rb_ivar_get v x h' = Some nil" "hash_of v h' = Some []" for x
    using assms by (auto simp: rb_new_def hash_of_def rb_ivar_get_def new_robj_def)
  have "owns v h' []" using g by (simp add: owns_def)
  then show "own_arrays v h'" by (auto simp: own_arrays_def)
  show "view_of v h' = empty_view"
    by (simp add: view_of_def empty_view_def field_list_def attribute_def read_value_def g fun_eq_iff)
qed

lemma owns_hash: "owns v h kvs \<Longrightarrow> hash_of v h = Some kvs"
  by (simp add: owns_def)

lemma owns_field: "owns v h kvs \<Longrightarrow> (k, r) \<in> set kvs \<Longrightarrow> \<exists>vs. ary_of r h = Some vs"
  by (auto simp: owns_def)

lemma owns_allocated: "owns v h kvs \<Longrightarrow> rb_ivar_get v x h = Some r \<Longrightarrow> allocated r h"
  by (simp add: owns_def)

lemma owns_alone:
  assumes "owns v h kvs" and "rb_ivar_get v x h = Some r" and "ary_of r h = Some vs"
  shows "(k, r) \<notin> set kvs" "y \<noteq> x \<Longrightarrow> rb_ivar_get v y h \<noteq> Some r"
  using assms unfolding owns_def by blast+

subsection \<open>The three changes\<close>

lemma ivar_set_view:
  assumes own: "own_arrays v h"
  shows "\<exists>h'. rb_ivar_set v x (Imm y) h = Some h' \<and> own_arrays v h' \<and>
    view_of v h' = set_attr x (Single y) (view_of v h)"
proof -
  obtain kvs where own': "owns v h kvs" using own by (auto simp: own_arrays_def)
  note kvs = owns_hash [OF own']
  obtain h' where h': "rb_ivar_set v x (Imm y) h = Some h'"
    "\<And>u z. rb_ivar_get u z h' = (if u = v \<and> z = x then Some (Imm y) else rb_ivar_get u z h)"
    "\<And>u. ary_of u h' = ary_of u h" "\<And>u. hash_of u h' = hash_of u h"
    "\<And>u. allocated u h' = allocated u h"
    using ivar_set [OF hash_of_ivar [OF kvs]] by blast
  have "own_arrays v h'"
    using own' unfolding own_arrays_def owns_def h' by (intro exI [of _ kvs]) (auto split: if_splits)
  moreover have "values_of h' = values_of h" "read_value h' = read_value h"
    by (simp_all add: values_of_def read_value_def h' fun_eq_iff)
  then have "field_list v h' = field_list v h"
    "attribute v h' z = (if z = x then Single y else attribute v h z)" for z
    by (simp_all only: field_list_def h') (simp add: attribute_def h' read_value_def split: option.split)
  then have "view_of v h' = set_attr x (Single y) (view_of v h)"
    by (simp add: view_of_def set_attr_def fun_eq_iff)
  ultimately show ?thesis using h'(1) by blast
qed

lemma ivar_push_view:
  assumes own: "own_arrays v h"
  shows "\<exists>h'. ivar_push v x (Imm y) h = Some h' \<and> own_arrays v h' \<and>
    view_of v h' = push_attr x y (view_of v h)"
proof -
  obtain kvs where own': "owns v h kvs" using own by (auto simp: own_arrays_def)
  note kvs = owns_hash [OF own']
  obtain a where a: "rb_ivar_get v x h = Some a" using hash_of_ivar [OF kvs] by blast
  show ?thesis
  proof (cases "ary_of a h")
    case None
    obtain h1 r where new: "rb_ary_new [Imm y] h = (h1, r)" by (cases "rb_ary_new [Imm y] h")
    note n = ary_new [OF new]
    have vr: "v \<noteq> r" using n(5) kvs by auto
    have "hash_of v h1 = Some kvs" using n(2) kvs by simp
    from hash_of_ivar [OF this] obtain h' where h': "rb_ivar_set v x r h1 = Some h'"
      "\<And>u z. rb_ivar_get u z h' = (if u = v \<and> z = x then Some r else rb_ivar_get u z h1)"
      "\<And>u. ary_of u h' = ary_of u h1" "\<And>u. hash_of u h' = hash_of u h1"
      "\<And>u. allocated u h' = allocated u h1" by (rule ivar_set [where x = x and w = r]) (rule that)
    have old: "rb_ivar_get v z h \<noteq> Some r" for z using owns_allocated [OF own'] n(7) by blast
    have fld: "(k, r) \<notin> set kvs" for k using owns_field [OF own', of k r] n(4) by auto
    have "own_arrays v h'"
      using own' old fld vr unfolding own_arrays_def owns_def h' n
      by (intro exI [of _ kvs]) (auto split: if_splits)
    moreover have "view_of v h' = push_attr x y (view_of v h)"
    proof -
      have "field_list v h' = field_list v h"
        using fld by (auto simp: field_list_def kvs h' n values_of_def)
      moreover have "attribute v h x = Single (imm a)" using a None by (simp add: attribute_def read_value_def)
      moreover have "attribute v h' z = (if z = x then Values [y] else attribute v h z)" for z
        using old [of z] vr n h' by (auto simp: attribute_def read_value_def split: option.split)
      ultimately show ?thesis by (simp add: view_of_def push_attr_def set_attr_def fun_eq_iff)
    qed
    ultimately show ?thesis using a None new h'(1) by (auto simp: ivar_push_def is_T_ARRAY_def)
  next
    case (Some vs)
    then obtain h' where h': "rb_ary_push a (Imm y) h = Some h'"
      "\<And>u. ary_of u h' = (if u = a then Some (vs @ [Imm y]) else ary_of u h)"
      "\<And>u. hash_of u h' = hash_of u h" "\<And>u x. rb_ivar_get u x h' = rb_ivar_get u x h"
      "\<And>u. allocated u h' = allocated u h" by (rule ary_push [where w = "Imm y"]) (rule that)
    have other: "rb_ivar_get v z h \<noteq> Some a" if "z \<noteq> x" for z using owns_alone(2) [OF own' a Some that] .
    have fld: "(k, a) \<notin> set kvs" for k by (rule owns_alone(1) [OF own' a Some])
    have "own_arrays v h'"
      using own' Some a unfolding own_arrays_def owns_def h'
      by (intro exI [of _ kvs]) (auto split: if_splits)
    moreover have "view_of v h' = push_attr x y (view_of v h)"
    proof -
      have "field_list v h' = field_list v h"
        using fld by (auto simp: field_list_def kvs h' values_of_def)
      moreover have "attribute v h x = Values (map imm vs)" using a Some by (simp add: attribute_def read_value_def)
      moreover have "attribute v h' z = (if z = x then Values (map imm vs @ [y]) else attribute v h z)" for z
        using other [of z] a h' by (auto simp: attribute_def read_value_def split: option.split)
      ultimately show ?thesis by (simp add: view_of_def push_attr_def set_attr_def fun_eq_iff)
    qed
    ultimately show ?thesis using a Some h'(1) by (auto simp: ivar_push_def is_T_ARRAY_def)
  qed
qed

lemma attribute_eq:
  "rb_ivar_get v x h' = rb_ivar_get v x h \<Longrightarrow>
   (\<And>r. rb_ivar_get v x h = Some r \<Longrightarrow> ary_of r h' = ary_of r h) \<Longrightarrow> attribute v h' x = attribute v h x"
  by (auto simp: attribute_def read_value_def split: option.split)

lemma hash_push_view:
  assumes own: "own_arrays v h"
  shows "\<exists>h'. hash_push v k (Imm y) h = Some h' \<and> own_arrays v h' \<and>
    view_of v h' = add_field k y (view_of v h)"
proof -
  obtain kvs where own': "owns v h kvs" using own by (auto simp: own_arrays_def)
  note kvs = owns_hash [OF own']
  show ?thesis
  proof (cases "map_of kvs k")
    case None
    obtain h1 r where new: "rb_ary_new [Imm y] h = (h1, r)" by (cases "rb_ary_new [Imm y] h")
    note n = ary_new [OF new]
    have vr: "v \<noteq> r" using n(5) kvs by auto
    have "hash_of v h1 = Some kvs" using n(2) kvs by simp
    then obtain h' where h': "rb_hash_aset v k r h1 = Some h'"
      "\<And>u. hash_of u h' = (if u = v then Some (assoc_set k r kvs) else hash_of u h1)"
      "\<And>u. ary_of u h' = ary_of u h1" "\<And>u x. rb_ivar_get u x h' = rb_ivar_get u x h1"
      "\<And>u. allocated u h' = allocated u h1" by (rule hash_aset [where k = k and w = r]) (rule that)
    have old: "rb_ivar_get v z h \<noteq> Some r" for z using owns_allocated [OF own'] n(7) by blast
    have fld: "(k, r) \<notin> set kvs" for k using owns_field [OF own', of k r] n(4) by auto
    then have fld': "r \<notin> snd ` set kvs" by auto
    note set = assoc_set_new [OF None]
    have kn: "k \<notin> fst ` set kvs" using None by (simp add: map_of_eq_None_iff)
    have "own_arrays v h'"
      using own' old fld fld' vr set unfolding own_arrays_def owns_def h' n
      by (intro exI [of _ "kvs @ [(k, r)]"]) (auto split: if_splits)
    moreover have "view_of v h' = add_field k y (view_of v h)"
    proof -
      have "field_list v h' = field_list v h @ [(k, [y])]"
        using fld by (auto simp: field_list_def kvs h' n values_of_def set)
      also have "\<dots> = mm_add k y (field_list v h)"
        using kn by (intro mm_add_new [symmetric]) (auto simp: field_list_def kvs image_iff)
      finally have "field_list v h' = mm_add k y (field_list v h)" .
      moreover have "attribute v h' z = attribute v h z" for z
        using old [of z] vr n h' by (intro attribute_eq) auto
      ultimately show ?thesis by (simp add: view_of_def add_field_def fun_eq_iff)
    qed
    ultimately show ?thesis using kvs None new h'(1)
      by (auto simp: hash_push_def hash_lookup is_T_ARRAY_def)
  next
    case (Some a)
    have dist: "distinct (map snd kvs)" using own' by (simp add: owns_def)
    have mem: "(k, a) \<in> set kvs" using Some by (rule map_of_SomeD)
    then obtain vs where vs: "ary_of a h = Some vs" using owns_field [OF own'] by blast
    then obtain h' where h': "rb_ary_push a (Imm y) h = Some h'"
      "\<And>u. ary_of u h' = (if u = a then Some (vs @ [Imm y]) else ary_of u h)"
      "\<And>u. hash_of u h' = hash_of u h" "\<And>u x. rb_ivar_get u x h' = rb_ivar_get u x h"
      "\<And>u. allocated u h' = allocated u h" by (rule ary_push [where w = "Imm y"]) (rule that)
    have other: "rb_ivar_get v z h \<noteq> Some a" for z using owns_alone(1) [OF own' _ vs] mem by blast
    have "own_arrays v h'"
      using own' vs mem unfolding own_arrays_def owns_def h'
      by (intro exI [of _ kvs]) (auto split: if_splits)
    moreover have "view_of v h' = add_field k y (view_of v h)"
    proof -
      have "field_list v h' = map (\<lambda>(k', r'). (k', if r' = a then values_of h a @ [y] else values_of h r')) kvs"
        by (auto simp: field_list_def kvs h' vs values_of_def)
      also have "\<dots> = mm_add k y (field_list v h)"
        by (simp add: field_list_def kvs mm_add_push [OF Some dist])
      finally have "field_list v h' = mm_add k y (field_list v h)" .
      moreover have "attribute v h' z = attribute v h z" for z
        using other [of z] h' by (intro attribute_eq) auto
      ultimately show ?thesis by (simp add: view_of_def add_field_def fun_eq_iff)
    qed
    ultimately show ?thesis using kvs Some vs h'(1)
      by (auto simp: hash_push_def hash_lookup is_T_ARRAY_def)
  qed
qed

end
