(* ===== verification/Parser_Error.thy ===== *)
theory Parser_Error
  imports Ruby_Value "HOL-Library.Monad_Syntax"
begin

text \<open>
  \<open>HttpRequestParser_error\<close> (ext/websocket_http_parser/ws_http_parser_ruby.c) and
  \<open>SipMessageParser_error\<close> (ext/sip_parser/sip_parser_ruby.c), which are the same code: the text
  of the buffer with the wrong character in braces and its line ends spelled out, written into a
  buffer of \<open>2 * error_len + 6\<close> characters.
\<close>

text \<open>
  Writing \<open>s\<close> from \<open>j\<close> on, where \<open>out\<close> is what is written so far; behind the end of the buffer
  is \<open>None\<close>.
\<close>

definition emit :: "nat \<Rightarrow> string \<Rightarrow> string \<Rightarrow> string option" where
  "emit cap s out = (if length out + length s \<le> cap then Some (out @ s) else None)"

definition emit_char :: "nat \<Rightarrow> char \<Rightarrow> string \<times> nat \<Rightarrow> (string \<times> nat) option" where
  "emit_char cap c s =
     (case s of (out, n) \<Rightarrow>
        if c = CHR 0x0D then map_option (\<lambda>o'. (o', n + 2)) (emit cap [CHR 0x5C, CHR ''r''] out)
        else if c = CHR 0x0A then map_option (\<lambda>o'. (o', n + 2)) (emit cap [CHR 0x5C, CHR ''n''] out)
        else map_option (\<lambda>o'. (o', n + 1)) (emit cap [c] out))"

text \<open>The loop from \<open>i\<close> on; \<open>n\<close> is \<open>parsing_error_str_len\<close>.\<close>

fun error_loop :: "nat \<Rightarrow> int \<Rightarrow> nat \<Rightarrow> string \<Rightarrow> string \<times> nat \<Rightarrow> (string \<times> nat) option" where
  "error_loop cap error_pos i [] s = Some s"
| "error_loop cap error_pos i (c # w) s =
     (if int i \<noteq> error_pos then do {
        s \<leftarrow> emit_char cap c s;
        error_loop cap error_pos (i + 1) w s
      }
      else do {
        out \<leftarrow> emit cap ''{{{'' (fst s);
        (out, n) \<leftarrow> emit_char cap c (out, snd s);
        out \<leftarrow> emit cap ''}}}'' out;
        error_loop cap error_pos (i + 1) w (out, n + 6)
      })"

definition parsing_error_string :: "string \<Rightarrow> nat \<Rightarrow> int \<Rightarrow> string option" where
  "parsing_error_string error_start error_len error_pos = do {
     (out, n) \<leftarrow> error_loop (2 * error_len + 6) error_pos 0 (take error_len error_start) ([], 0);
     (if n \<le> length out then Some (take n out) else None)
   }"

subsection \<open>What it is to show\<close>

definition spell :: "char \<Rightarrow> string" where
  "spell c = (if c = CHR 0x0D then [CHR 0x5C, CHR ''r''] else if c = CHR 0x0A then [CHR 0x5C, CHR ''n'']
     else [c])"

definition shown_error :: "string \<Rightarrow> nat \<Rightarrow> string" where
  "shown_error text pos =
     concat (map spell (take pos text)) @ ''{{{'' @ spell (text ! pos) @ ''}}}'' @
     concat (map spell (drop (Suc pos) text))"

lemma spell_length: "1 \<le> length (spell c)" "length (spell c) \<le> 2"
  by (auto simp: spell_def)

lemma length_spells: "length (concat (map spell w)) \<le> 2 * length w"
  using spell_length by (induction w) (auto intro: order.trans add_mono)

lemma emit_char_spell:
  "length out + length (spell c) \<le> cap \<Longrightarrow>
   emit_char cap c (out, n) = Some (out @ spell c, n + length (spell c))"
  by (auto simp: emit_char_def emit_def spell_def split: if_splits)

lemma error_loop_plain:
  "(\<And>k. i \<le> k \<Longrightarrow> k < i + length w \<Longrightarrow> int k \<noteq> pos) \<Longrightarrow> length out + 2 * length w \<le> cap \<Longrightarrow>
   error_loop cap pos i w (out, n) =
     Some (out @ concat (map spell w), n + length (concat (map spell w)))"
proof (induction w arbitrary: i out n)
  case (Cons c w)
  have e: "emit_char cap c (out, n) = Some (out @ spell c, n + length (spell c))"
    using Cons.prems(2) spell_length(2) [of c] by (intro emit_char_spell) simp
  have "error_loop cap pos (i + 1) w (out @ spell c, n + length (spell c)) =
      Some ((out @ spell c) @ concat (map spell w), n + length (spell c) + length (concat (map spell w)))"
    using Cons.prems spell_length(2) [of c] by (intro Cons.IH) simp_all
  then show ?case using Cons.prems(1) [of i] e by simp
qed simp

lemma error_loop_append:
  "error_loop cap pos i (v @ w) s =
     (case error_loop cap pos i v s of None \<Rightarrow> None | Some s' \<Rightarrow> error_loop cap pos (i + length v) w s')"
  by (induction v arbitrary: i s) (auto split: option.split bind_splits)

theorem parsing_error_shown:
  assumes "pos < length text"
  shows "parsing_error_string (text @ rest) (length text) (int pos) = Some (shown_error text pos)"
proof -
  let ?cap = "2 * length text + 6"
  let ?a = "concat (map spell (take pos text))" and ?b = "concat (map spell (drop (Suc pos) text))"
  let ?c = "text ! pos"
  have split: "text = take pos text @ ?c # drop (Suc pos) text" using assms by (simp add: id_take_nth_drop)
  have la: "length ?a \<le> 2 * pos" using length_spells [of "take pos text"] assms by simp
  have lb: "length ?b \<le> 2 * (length text - Suc pos)" using length_spells [of "drop (Suc pos) text"] by simp
  have lc: "length (spell ?c) \<le> 2" by (rule spell_length)
  let ?m = "?a @ ''{{{'' @ spell ?c @ ''}}}''"
  have first: "error_loop ?cap (int pos) 0 (take pos text) ([], 0) = Some (?a, length ?a)"
    using assms error_loop_plain [of 0 "take pos text" "int pos" "[]" ?cap 0] by simp
  have mid: "error_loop ?cap (int pos) pos (?c # drop (Suc pos) text) (?a, length ?a) =
      error_loop ?cap (int pos) (Suc pos) (drop (Suc pos) text) (?m, length ?a + length (spell ?c) + 6)"
    using la lc assms emit_char_spell [of "?a @ ''{{{''" ?c ?cap "length ?a"]
    by (simp add: emit_def)
  have m: "length ?m = length ?a + length (spell ?c) + 6" by simp
  have last: "error_loop ?cap (int pos) (Suc pos) (drop (Suc pos) text) (?m, length ?m) =
      Some (?m @ ?b, length ?m + length ?b)"
    using la lc assms by (intro error_loop_plain) simp_all
  have "error_loop ?cap (int pos) 0 text ([], 0) = Some (?m @ ?b, length ?m + length ?b)"
    by (subst split, subst error_loop_append) (use first mid [folded m] last assms in simp)
  then show ?thesis by (simp add: parsing_error_string_def shown_error_def)
qed

end
