(* ===== verification/Ws_Http_Ruby.thy ===== *)
theory Ws_Http_Ruby
  imports Ws_Http_Certificate Ruby_Request Parser_Error Ruby_C_Util Header_Names
begin

text \<open>
  ext/websocket_http_parser/ws_http_parser_ruby.c: the functions the parser calls, which fill the
  request object (a Hash of the header fields with instance variables), and the methods of the
  Ruby class \<open>OverSIP::WebSocket::HttpRequestParser\<close>.
\<close>

subsection \<open>The callbacks\<close>

text \<open>The copy of \<open>headerize\<close> in this file, without a table of names.\<close>

definition ws_headerize :: "string \<Rightarrow> ruby_value" where
  "ws_headerize hname =
     Str (headerize_loop (if hname = [] then hname else hname[0 := upcase_letter (hd hname)]) 1)"

definition ws_header :: "rval \<Rightarrow> string \<Rightarrow> nat \<Rightarrow> string \<Rightarrow> nat \<Rightarrow> heap \<Rightarrow> heap option" where
  "ws_header parsed hdr_field hdr_field_len hdr_value hdr_value_len h = do {
     name \<leftarrow> chars hdr_field hdr_field_len;
     let f = ws_headerize name;
     v \<leftarrow> chars hdr_value hdr_value_len;
     hash_push parsed f (Imm (Str v)) h
   }"

fun req_method :: "rval \<Rightarrow> string \<Rightarrow> nat \<Rightarrow> ws_method option \<Rightarrow> heap \<Rightarrow> heap option" where
  "req_method parsed at n (Some method_GET) h =
     rb_ivar_set parsed ''@http_method'' (Imm (Sym ''GET'')) h"
| "req_method parsed at n (Some method_POST) h =
     rb_ivar_set parsed ''@http_method'' (Imm (Sym ''POST'')) h"
| "req_method parsed at n (Some method_OPTIONS) h =
     rb_ivar_set parsed ''@http_method'' (Imm (Sym ''OPTIONS'')) h"
| "req_method parsed at n (Some method_unknown) h = do {
     v \<leftarrow> chars at n;
     h \<leftarrow> rb_ivar_set parsed ''@http_method'' (Imm (Str v)) h;
     rb_ivar_set parsed ''is_unknown_method'' (Imm Qtrue) h
   }"
| "req_method parsed at n None h = Some h"

fun req_uri_scheme :: "rval \<Rightarrow> string \<Rightarrow> nat \<Rightarrow> ws_uri_scheme \<Rightarrow> heap \<Rightarrow> heap option" where
  "req_uri_scheme parsed at n uri_scheme_http h =
     rb_ivar_set parsed ''@uri_scheme'' (Imm (Sym ''http'')) h"
| "req_uri_scheme parsed at n uri_scheme_https h =
     rb_ivar_set parsed ''@uri_scheme'' (Imm (Sym ''https'')) h"
| "req_uri_scheme parsed at n uri_scheme_unknown h = do {
     v \<leftarrow> chars at n;
     rb_ivar_set parsed ''@uri_scheme'' (Imm (Str (my_rb_str_downcase v))) h
   }"

definition req_request_uri :: "rval \<Rightarrow> string \<Rightarrow> nat \<Rightarrow> heap \<Rightarrow> heap option" where
  "req_request_uri parsed at n h = do {
     v \<leftarrow> chars at n; rb_ivar_set parsed ''@uri'' (Imm (Str v)) h }"

definition req_request_path :: "rval \<Rightarrow> string \<Rightarrow> nat \<Rightarrow> heap \<Rightarrow> heap option" where
  "req_request_path parsed at n h = do {
     v \<leftarrow> chars at n; rb_ivar_set parsed ''@uri_path'' (Imm (Str v)) h }"

definition req_query :: "rval \<Rightarrow> string \<Rightarrow> nat \<Rightarrow> heap \<Rightarrow> heap option" where
  "req_query parsed at n h = do {
     v \<leftarrow> chars at n; rb_ivar_set parsed ''@uri_query'' (Imm (Str v)) h }"

definition req_fragment :: "rval \<Rightarrow> string \<Rightarrow> nat \<Rightarrow> heap \<Rightarrow> heap option" where
  "req_fragment parsed at n h = do {
     v \<leftarrow> chars at n; rb_ivar_set parsed ''@uri_fragment'' (Imm (Str v)) h }"

definition req_http_version :: "rval \<Rightarrow> string \<Rightarrow> nat \<Rightarrow> heap \<Rightarrow> heap option" where
  "req_http_version parsed at n h = do {
     v \<leftarrow> chars at n; rb_ivar_set parsed ''@http_version'' (Imm (Str v)) h }"

text \<open>\<open>at[length-1]\<close> of an empty host is in front of it.\<close>

definition req_host :: "rval \<Rightarrow> string \<Rightarrow> nat \<Rightarrow> heap \<Rightarrow> heap option" where
  "req_host parsed at n h =
     (if n = 0 then None
      else do {
        w \<leftarrow> chars at n;
        v \<leftarrow> chars at (if w ! (n - 1) = CHR ''.'' then n - 1 else n);
        rb_ivar_set parsed ''@host'' (Imm (Str (my_rb_str_downcase v))) h
      })"

definition req_port :: "rval \<Rightarrow> string \<Rightarrow> nat \<Rightarrow> heap \<Rightarrow> heap option" where
  "req_port parsed at n h = do {
     w \<leftarrow> chars at n; i \<leftarrow> str_to_int w;
     rb_ivar_set parsed ''@port'' (Imm (Fix i)) h }"

definition req_content_length :: "rval \<Rightarrow> string \<Rightarrow> nat \<Rightarrow> heap \<Rightarrow> heap option" where
  "req_content_length parsed at n h =
     rb_ivar_set parsed ''@content_length'' (Imm (LONG2FIX (strtol at 0))) h"

definition req_hdr_connection_value :: "rval \<Rightarrow> string \<Rightarrow> nat \<Rightarrow> heap \<Rightarrow> heap option" where
  "req_hdr_connection_value parsed at n h = do {
     v \<leftarrow> chars at n; ivar_push parsed ''@hdr_connection'' (Imm (Str (my_rb_str_downcase v))) h }"

definition req_hdr_upgrade :: "rval \<Rightarrow> string \<Rightarrow> nat \<Rightarrow> heap \<Rightarrow> heap option" where
  "req_hdr_upgrade parsed at n h = do {
     v \<leftarrow> chars at n; rb_ivar_set parsed ''@hdr_upgrade'' (Imm (Str (my_rb_str_downcase v))) h }"

definition req_hdr_sec_websocket_version :: "rval \<Rightarrow> string \<Rightarrow> nat \<Rightarrow> heap \<Rightarrow> heap option" where
  "req_hdr_sec_websocket_version parsed at n h = do {
     w \<leftarrow> chars at n; i \<leftarrow> str_to_int w;
     rb_ivar_set parsed ''@hdr_sec_websocket_version'' (Imm (Fix i)) h }"

definition req_hdr_sec_websocket_key :: "rval \<Rightarrow> string \<Rightarrow> nat \<Rightarrow> heap \<Rightarrow> heap option" where
  "req_hdr_sec_websocket_key parsed at n h = do {
     v \<leftarrow> chars at n; rb_ivar_set parsed ''@hdr_sec_websocket_key'' (Imm (Str v)) h }"

definition req_hdr_sec_websocket_protocol_value :: "rval \<Rightarrow> string \<Rightarrow> nat \<Rightarrow> heap \<Rightarrow> heap option" where
  "req_hdr_sec_websocket_protocol_value parsed at n h = do {
     v \<leftarrow> chars at n; ivar_push parsed ''@hdr_sec_websocket_protocol'' (Imm (Str v)) h }"

definition req_hdr_origin :: "rval \<Rightarrow> string \<Rightarrow> nat \<Rightarrow> heap \<Rightarrow> heap option" where
  "req_hdr_origin parsed at n h = do {
     v \<leftarrow> chars at n; rb_ivar_set parsed ''@hdr_origin'' (Imm (Str (my_rb_str_downcase v))) h }"

text \<open>
  The function pointers as \<open>HttpRequestParser_alloc\<close> sets them; \<open>data\<close> is \<open>NULL\<close> before the first
  \<open>execute\<close>.
\<close>

fun ws_dispatch :: "rval \<Rightarrow> ws_call \<Rightarrow> heap \<Rightarrow> heap option" where
  "ws_dispatch v (Header f m w n) = ws_header v f m w n"
| "ws_dispatch v (Method at n m) = req_method v at n m"
| "ws_dispatch v (Request_uri at n) = req_request_uri v at n"
| "ws_dispatch v (Request_path at n) = req_request_path v at n"
| "ws_dispatch v (Query at n) = req_query v at n"
| "ws_dispatch v (Fragment at n) = req_fragment v at n"
| "ws_dispatch v (Http_version at n) = req_http_version v at n"
| "ws_dispatch v (Host at n) = req_host v at n"
| "ws_dispatch v (Port at n) = req_port v at n"
| "ws_dispatch v (Content_length at n) = req_content_length v at n"
| "ws_dispatch v (Hdr_connection_value at n) = req_hdr_connection_value v at n"
| "ws_dispatch v (Hdr_upgrade at n) = req_hdr_upgrade v at n"
| "ws_dispatch v (Hdr_origin at n) = req_hdr_origin v at n"
| "ws_dispatch v (Hdr_sec_websocket_version at n) = req_hdr_sec_websocket_version v at n"
| "ws_dispatch v (Hdr_sec_websocket_key at n) = req_hdr_sec_websocket_key v at n"
| "ws_dispatch v (Hdr_sec_websocket_protocol_value at n) = req_hdr_sec_websocket_protocol_value v at n"

definition ws_ruby :: "heap ws_callbacks" where
  "ws_ruby d c h = (case d of None \<Rightarrow> None | Some v \<Rightarrow> ws_dispatch v c h)"

subsection \<open>The methods of the class\<close>

text \<open>
  How a method ends: it raises, the process aborts (a failed assertion, or behaviour C does not
  define), or it returns a value with the parser struct and the objects as it leaves them.
\<close>

datatype ws_raise = Ws_TypeError | Ws_RangeError | Ws_ParserError

datatype ws_ending =
    Raises ws_raise
  | Aborts
  | Returns ruby_value ws_http_request_parser heap

definition HttpRequestParser_alloc :: "ws_http_request_parser \<Rightarrow> ws_http_request_parser" where
  "HttpRequestParser_alloc pr = ws_http_request_parser_init pr"

definition HttpRequestParser_init :: "ws_http_request_parser \<Rightarrow> ws_http_request_parser" where
  "HttpRequestParser_init pr = ws_http_request_parser_init pr"

definition HttpRequestParser_reset :: "ws_http_request_parser \<Rightarrow> ws_http_request_parser \<times> ruby_value" where
  "HttpRequestParser_reset pr = (ws_http_request_parser_init pr, Qnil)"

definition HttpRequestParser_finish :: "ws_http_request_parser \<Rightarrow> ruby_value" where
  "HttpRequestParser_finish pr =
     (if ws_http_request_parser_is_finished pr then Qtrue else Qfalse)"

definition HttpRequestParser_execute ::
  "ws_http_request_parser \<Rightarrow> rval \<Rightarrow> ruby_value \<Rightarrow> ruby_value \<Rightarrow> heap \<Rightarrow> ws_ending" where
  "HttpRequestParser_execute pr req_hash buffer start h =
     (if hash_of req_hash h = None then Raises Ws_TypeError
      else
        (case (buffer, start) of
           (Str s, Fix from) \<Rightarrow>
             if \<not> (- (2 ^ 31) \<le> from \<and> from < 2 ^ 31) then Raises Ws_RangeError
             else if int (length s) \<le> from then Raises Ws_ParserError
             else if from < 0 then Aborts
             else
               (case ws_http_request_parser_execute ws_ruby (pr\<lparr>w_data := Some req_hash\<rparr>) h
                       (s @ NUL) (length s) (nat from) of
                  None \<Rightarrow> Aborts
                | Some (pr', h') \<Rightarrow>
                    Returns (if ws_http_request_parser_has_error pr' then Qfalse
                             else Fix (int (w_nread pr'))) pr' h')
         | _ \<Rightarrow> Raises Ws_TypeError))"

definition HttpRequestParser_has_error :: "ws_http_request_parser \<Rightarrow> ruby_value" where
  "HttpRequestParser_has_error pr = (if ws_http_request_parser_has_error pr then Qtrue else Qfalse)"

text \<open>\<open>None\<close> is a write behind the string's buffer, or a parser that has never seen one.\<close>

definition HttpRequestParser_error :: "ws_http_request_parser \<Rightarrow> ruby_value option" where
  "HttpRequestParser_error pr =
     (if ws_http_request_parser_has_error pr then
        (case w_error_start pr of
           None \<Rightarrow> None
         | Some text \<Rightarrow>
             map_option Str (parsing_error_string text (w_error_len pr) (w_error_pos pr)))
      else Some Qnil)"

definition HttpRequestParser_is_finished :: "ws_http_request_parser \<Rightarrow> ruby_value" where
  "HttpRequestParser_is_finished pr =
     (if ws_http_request_parser_is_finished pr then Qtrue else Qfalse)"

definition HttpRequestParser_nread :: "ws_http_request_parser \<Rightarrow> ruby_value" where
  "HttpRequestParser_nread pr = Fix (int (w_nread pr))"

end
