(* ===== verification/Strtol_Number.thy ===== *)
theory Strtol_Number
  imports Ruby_C_Util Port_Spec
begin

text \<open>
  What \<open>strtol(at, NULL, 0)\<close> reads where a number of a header field is: it ends at the first
  character that is no digit, and a leading zero makes it octal.
\<close>

definition number_base :: "string \<Rightarrow> int" where
  "number_base w = (if hd w = CHR ''0'' then 8 else 10)"

definition number_value :: "string \<Rightarrow> int" where
  "number_value w =
     foldl (\<lambda>n c. n * number_base w + c_digit c) 0 (takeWhile (\<lambda>c. c_digit c < number_base w) w)"

lemma digit_facts:
  assumes "is_digit c"
  shows "\<not> c_isspace c" "c \<noteq> CHR ''-''" "c \<noteq> CHR ''+''" "c \<noteq> CHR ''x''" "c \<noteq> CHR ''X''"
    "c_digit c = schar c - 48" "0 \<le> c_digit c" "c_digit c < 10"
  using assms by (auto simp: is_digit_def c_isspace_def c_digit_def schar_def)

definition no_digit :: "char \<Rightarrow> bool" where
  "no_digit c \<longleftrightarrow> c_digit c = 36"

lemma no_digit_facts: "no_digit c \<Longrightarrow> c \<noteq> CHR ''x'' \<and> c \<noteq> CHR ''X''"
  by (auto simp: no_digit_def c_digit_def schar_def)

lemma foldl_digits_bound:
  assumes "list_all (\<lambda>c. 0 \<le> c_digit c \<and> c_digit c < b) w" and "0 < b" and "b \<le> 10" and "0 \<le> n"
  shows "0 \<le> foldl (\<lambda>n c. n * b + c_digit c) n w \<and>
    foldl (\<lambda>n c. n * b + c_digit c) n w < (n + 1) * 10 ^ length w"
  using assms(1,4)
proof (induction w arbitrary: n)
  case (Cons c w)
  let ?m = "n * b + c_digit c"
  have m: "0 \<le> ?m" "?m + 1 \<le> (n + 1) * 10"
  proof -
    have "n * b \<le> n * 10" using assms(3) Cons.prems(2) by (simp add: mult_left_mono)
    then show "0 \<le> ?m" "?m + 1 \<le> (n + 1) * 10" using Cons.prems assms(2,3) by auto
  qed
  then have "foldl (\<lambda>n c. n * b + c_digit c) ?m w < (?m + 1) * 10 ^ length w"
    and "0 \<le> foldl (\<lambda>n c. n * b + c_digit c) ?m w"
    using Cons.IH [of ?m] Cons.prems by simp_all
  moreover have "(?m + 1) * 10 ^ length w \<le> (n + 1) * 10 * 10 ^ length w"
    using m by (simp add: mult_right_mono)
  ultimately show ?case by (simp add: algebra_simps)
qed simp

lemma number_value_bounds:
  assumes "list_all is_digit w"
  shows "0 \<le> number_value w" "number_value w < 10 ^ length w"
proof -
  let ?t = "takeWhile (\<lambda>c. c_digit c < number_base w) w"
  have t: "list_all (\<lambda>c. 0 \<le> c_digit c \<and> c_digit c < number_base w) ?t"
    using assms digit_facts(7) by (auto simp: list_all_iff dest!: set_takeWhileD)
  have b: "0 < number_base w" "number_base w \<le> 10" by (simp_all add: number_base_def)
  have "number_value w < 10 ^ length ?t" "0 \<le> number_value w"
    using foldl_digits_bound [OF t b, of 0] by (simp_all add: number_value_def)
  moreover have "(10 :: int) ^ length ?t \<le> 10 ^ length w"
    by (intro power_increasing) (simp_all add: length_takeWhile_le)
  ultimately show "0 \<le> number_value w" "number_value w < 10 ^ length w"
    by (simp, blast intro: order.strict_trans2)
qed

text \<open>The number read is that of the digits alone.\<close>

theorem strtol_number:
  assumes w: "list_all is_digit w" "w \<noteq> []" "length w \<le> 18" and c: "no_digit c"
  shows "strtol (w @ c # rest) 0 = number_value w"
proof -
  obtain z w' where z: "w = z # w'" "is_digit z" using w by (cases w) auto
  have s: "dropWhile c_isspace (w @ c # rest) = w @ c # rest"
    "strtol_sign (w @ c # rest) = (1, w @ c # rest)"
    using digit_facts [OF z(2)] by (simp_all add: z(1) strtol_sign_def)
  have "strtol_base 0 (w @ c # rest) = (number_base w, w @ c # rest)"
  proof (cases w')
    case Nil
    then show ?thesis using z no_digit_facts [OF c] by (cases rest) (auto simp: strtol_base_def number_base_def)
  next
    case (Cons x w'')
    then have "is_digit x" using z w by simp
    then show ?thesis using z Cons digit_facts [of x]
      by (cases "w'' @ c # rest") (auto simp: strtol_base_def number_base_def)
  qed
  moreover have "takeWhile (\<lambda>x. c_digit x < number_base w) (w @ c # rest) =
      takeWhile (\<lambda>x. c_digit x < number_base w) w"
    using c by (simp add: takeWhile_tail no_digit_def number_base_def)
  moreover have "number_value w < 2 ^ 63 - 1"
  proof -
    have "number_value w < 10 ^ length w" by (rule number_value_bounds [OF w(1)])
    also have "(10 :: int) ^ length w \<le> 10 ^ 18" by (intro power_increasing) (use w in simp_all)
    finally show ?thesis by simp
  qed
  ultimately show ?thesis
    using s number_value_bounds [OF w(1)] unfolding strtol_def by (simp add: number_value_def)
qed

text \<open>Without a leading zero that is the decimal value.\<close>

lemma foldl_decimal:
  "list_all is_digit w \<Longrightarrow>
   foldl (\<lambda>n c. n * 10 + c_digit c) (int n) w = int (foldl (\<lambda>n c. 10 * n + digit_val c) n w)"
proof (induction w arbitrary: n)
  case (Cons c w)
  have "is_digit c" using Cons.prems by simp
  then have e: "int n * 10 + c_digit c = int (10 * n + digit_val c)"
    using digit_facts(6) [of c] by (simp add: digit_val_def is_digit_def)
  show ?case using Cons.IH [of "10 * n + digit_val c"] Cons.prems by (simp only: foldl_Cons e) simp
qed simp

lemma number_value_decimal:
  assumes "list_all is_digit w" and "hd w \<noteq> CHR ''0''"
  shows "number_value w = int (dec_val w)"
proof -
  have e: "takeWhile (\<lambda>c. c_digit c < 10) w = w"
    using assms(1) digit_facts(8) by (auto simp: takeWhile_eq_all_conv list_all_iff)
  show ?thesis
    unfolding number_value_def number_base_def dec_val_def
    using foldl_decimal [OF assms(1), of 0] assms(2) by (simp add: e)
qed

end
