(* ===== verification/Ws_Http_Request.thy ===== *)
theory Ws_Http_Request
  imports Ws_Http_Ruby Strtol_Number
begin

text \<open>
  The callbacks of ws_http_parser_ruby.c against their contract: each is one change of what a
  reader of the request sees, they look at their own slices only and return on every proper call.
  Then the parser and the class as the connection uses them.
\<close>

subsection \<open>What a call does to the request\<close>

definition str :: "string \<Rightarrow> attr_value" where
  "str s = Single (Str s)"

text \<open>A host name without the dot that may end it.\<close>

definition undotted :: "string \<Rightarrow> string" where
  "undotted s = (if last s = CHR ''.'' then butlast s else s)"

fun ws_spec :: "ws_call \<Rightarrow> request_view \<Rightarrow> request_view" where
  "ws_spec (Header f m w n) = add_field (Str (capitalized True (take m f))) (Str (take n w))"
| "ws_spec (Method at n m) =
     (case m of
        Some method_GET \<Rightarrow> set_attr ''@http_method'' (Single (Sym ''GET''))
      | Some method_POST \<Rightarrow> set_attr ''@http_method'' (Single (Sym ''POST''))
      | Some method_OPTIONS \<Rightarrow> set_attr ''@http_method'' (Single (Sym ''OPTIONS''))
      | Some method_unknown \<Rightarrow> \<lambda>rq.
          set_attr ''is_unknown_method'' (Single Qtrue) (set_attr ''@http_method'' (str (take n at)) rq)
      | None \<Rightarrow> id)"
| "ws_spec (Request_uri at n) = set_attr ''@uri'' (str (take n at))"
| "ws_spec (Request_path at n) = set_attr ''@uri_path'' (str (take n at))"
| "ws_spec (Query at n) = set_attr ''@uri_query'' (str (take n at))"
| "ws_spec (Fragment at n) = set_attr ''@uri_fragment'' (str (take n at))"
| "ws_spec (Http_version at n) = set_attr ''@http_version'' (str (take n at))"
| "ws_spec (Host at n) = set_attr ''@host'' (str (casefold (undotted (take n at))))"
| "ws_spec (Port at n) = set_attr ''@port'' (Single (Fix (int (dec_val (take n at)))))"
| "ws_spec (Content_length at n) = set_attr ''@content_length'' (Single (Fix (number_value (take n at))))"
| "ws_spec (Hdr_connection_value at n) = push_attr ''@hdr_connection'' (Str (casefold (take n at)))"
| "ws_spec (Hdr_upgrade at n) = set_attr ''@hdr_upgrade'' (str (casefold (take n at)))"
| "ws_spec (Hdr_origin at n) = set_attr ''@hdr_origin'' (str (casefold (take n at)))"
| "ws_spec (Hdr_sec_websocket_version at n) =
     set_attr ''@hdr_sec_websocket_version'' (Single (Fix (int (dec_val (take n at)))))"
| "ws_spec (Hdr_sec_websocket_key at n) = set_attr ''@hdr_sec_websocket_key'' (str (take n at))"
| "ws_spec (Hdr_sec_websocket_protocol_value at n) =
     push_attr ''@hdr_sec_websocket_protocol'' (Str (take n at))"

lemma chars_take [simp]: "chars (take n at) n = chars at n"
  by (auto simp: chars_def)

lemma chars_ok [simp]: "n \<le> length at \<Longrightarrow> chars at n = Some (take n at)"
  by (simp add: chars_def)

lemma ends_number_no_digit: "ends_number c \<Longrightarrow> no_digit c"
  by (auto simp: ends_number_def no_digit_def c_digit_def)

text \<open>A content length is read up to the character behind it.\<close>

lemma strtol_content_length:
  assumes "call_ok k (Content_length at n)" and "1 \<le> k"
  shows "strtol at 0 = number_value (take n at)" "strtol (take (n + 1) at) 0 = number_value (take n at)"
    "LONG2FIX (number_value (take n at)) = Fix (number_value (take n at))"
proof -
  let ?w = "take n at" and ?c = "at ! n"
  have n: "n < length at" and w: "list_all is_digit ?w" "?w \<noteq> []" "length ?w \<le> 18" "n \<le> 9" "no_digit ?c"
    using assms by (auto simp: digits_ok_def ends_number_no_digit)
  have at: "at = ?w @ ?c # drop (n + 1) at" using n by (simp add: id_take_nth_drop [symmetric])
  have tk: "take (n + 1) at = ?w @ ?c # []" using n by (simp add: take_Suc_conv_app_nth)
  show "strtol at 0 = number_value ?w"
    by (subst at) (rule strtol_number [OF w(1,2,3,5)])
  show "strtol (take (n + 1) at) 0 = number_value ?w"
    by (subst tk) (rule strtol_number [OF w(1,2,3,5)])
  have "number_value ?w < 10 ^ length ?w" "0 \<le> number_value ?w"
    using number_value_bounds [OF w(1)] by simp_all
  moreover have "(10 :: int) ^ length ?w \<le> 10 ^ 9" using w(4) by (intro power_increasing) simp_all
  ultimately show "LONG2FIX (number_value ?w) = Fix (number_value ?w)"
    by (simp add: LONG2FIX_def)
qed

lemma ws_dispatch_view: "call_ok 1 c \<Longrightarrow> ws_dispatch v c h = ws_dispatch v (view c) h"
proof (cases c)
  case (Method at n m)
  then show ?thesis by (cases "(v, at, n, m, h)" rule: req_method.cases) simp_all
next
  case (Content_length at n)
  then show "call_ok 1 c \<Longrightarrow> ?thesis"
    using strtol_content_length [of 1 at n] by (simp add: req_content_length_def)
next
  case (Host at n)
  show "call_ok 1 c \<Longrightarrow> ?thesis"
    unfolding Host call_ok.simps view.simps ws_dispatch.simps req_host_def
    by (elim conjE) simp
qed (simp_all add: ws_header_def req_request_uri_def req_request_path_def req_query_def
    req_fragment_def req_http_version_def req_port_def req_hdr_connection_value_def
    req_hdr_upgrade_def req_hdr_origin_def req_hdr_sec_websocket_version_def
    req_hdr_sec_websocket_key_def req_hdr_sec_websocket_protocol_value_def)

lemma digits_str_to_int:
  "digits_ok at n \<Longrightarrow> str_to_int (take n at) = Some (int (dec_val (take n at)))"
  by (rule str_to_int_short) (auto simp: digits_ok_def is_digit_def list_all_iff)

lemma undotted_take:
  assumes "n \<le> length at" and "1 \<le> n"
  shows "chars at (if take n at ! (n - 1) = CHR ''.'' then n - 1 else n) = Some (undotted (take n at))"
proof -
  have "last (take n at) = take n at ! (n - 1)"
    using assms last_conv_nth [of "take n at"] by (cases at) (auto simp: min_absorb2)
  moreover have "butlast (take n at) = take (n - 1) at" using assms by (simp add: butlast_take)
  ultimately show ?thesis using assms by (simp add: undotted_def)
qed

lemma ws_headerize_eq: "ws_headerize s = Str (capitalized True s)"
  unfolding ws_headerize_def headerize_unknown ..

lemma downcased: "my_rb_str_downcase s = casefold s"
  by (simp add: my_rb_str_downcase_map casefold_def)

text \<open>Every proper call returns, keeps the Arrays owned, and is the change \<open>ws_spec\<close> says.\<close>

lemma ws_dispatch_spec:
  assumes own: "own_arrays v h" and ok: "call_ok 1 c"
  shows "\<exists>h'. ws_dispatch v c h = Some h' \<and> own_arrays v h' \<and> view_of v h' = ws_spec c (view_of v h)"
proof (cases c)
  case (Method at n m)
  show ?thesis
  proof (cases m)
    case (Some x)
    obtain h1 where h1: "rb_ivar_set v ''@http_method'' (Imm (Str (take n at))) h = Some h1" "own_arrays v h1"
        "view_of v h1 = set_attr ''@http_method'' (str (take n at)) (view_of v h)"
      using ivar_set_view [OF own] unfolding str_def by blast
    show ?thesis
      using ivar_set_view [OF own, of "''@http_method''"] ivar_set_view [OF h1(2), of "''is_unknown_method''" Qtrue]
        h1 ok Some
      by (cases x) (simp_all add: Method)
  qed (use own in \<open>simp add: Method\<close>)
next
  case (Host at n)
  then have "req_host v at n h =
      rb_ivar_set v ''@host'' (Imm (Str (casefold (undotted (take n at))))) h"
    using ok undotted_take [of n at] by (simp add: req_host_def downcased)
  then show ?thesis using ivar_set_view [OF own] by (simp add: Host str_def)
next
  case (Content_length at n)
  then show ?thesis
    using ok strtol_content_length [of 1 at n] ivar_set_view [OF own]
    by (simp add: req_content_length_def)
qed (use ok ivar_set_view [OF own] ivar_push_view [OF own] hash_push_view [OF own] in
    \<open>simp_all add: ws_header_def ws_headerize_eq downcased digits_str_to_int str_def
      req_request_uri_def req_request_path_def req_query_def
      req_fragment_def req_http_version_def req_port_def req_hdr_connection_value_def
      req_hdr_upgrade_def req_hdr_origin_def req_hdr_sec_websocket_version_def
      req_hdr_sec_websocket_key_def req_hdr_sec_websocket_protocol_value_def\<close>)

text \<open>The callbacks keep the parser's contract.\<close>

interpretation ruby: ws_total_client ws_ruby "Some v" "own_arrays v"
proof
  fix c :: ws_call and h :: heap
  assume c: "call_ok 1 c"
  show "ws_ruby (Some v) c h = ws_ruby (Some v) (view c) h"
    using ws_dispatch_view [OF c] by (simp add: ws_ruby_def)
  assume "own_arrays v h"
  then show "\<exists>h'. ws_ruby (Some v) c h = Some h' \<and> own_arrays v h'"
    using ws_dispatch_spec [OF _ c] by (auto simp: ws_ruby_def)
qed

lemma ws_replay_spec:
  "own_arrays v h \<Longrightarrow> list_all (call_ok 1) log \<Longrightarrow> replay ws_ruby (Some v) log h = Some h' \<Longrightarrow>
   own_arrays v h' \<and> view_of v h' = fold ws_spec log (view_of v h)"
proof (induction log arbitrary: h)
  case (Cons c log)
  have c: "call_ok 1 c" using Cons.prems by simp
  obtain h1 where "ws_dispatch v c h = Some h1" "own_arrays v h1" "view_of v h1 = ws_spec c (view_of v h)"
    using ws_dispatch_spec [OF Cons.prems(1) c] by blast
  then show ?case using Cons by (simp add: ws_ruby_def)
qed simp

end
