(* ===== verification/Ws_Http_Class.thy ===== *)
theory Ws_Http_Class
  imports Ws_Http_Request
begin

text \<open>
  The class \<open>OverSIP::WebSocket::HttpRequestParser\<close> as lib/oversip/websocket/listeners/ws_server.rb
  uses it: a new parser and a new request, and \<open>execute\<close> on all the bytes that have come, from
  where it stopped before, each time some more come.
\<close>

fun parse_pieces ::
  "rval \<Rightarrow> string \<Rightarrow> string list \<Rightarrow> ws_http_request_parser \<Rightarrow> heap \<Rightarrow> ws_ending" where
  "parse_pieces v seen [] pr h = Returns (HttpRequestParser_nread pr) pr h"
| "parse_pieces v seen (c # cs) pr h =
     (case HttpRequestParser_execute pr v (Str (seen @ c)) (HttpRequestParser_nread pr) h of
        Returns r pr' h' \<Rightarrow>
          if r = Qfalse \<or> HttpRequestParser_is_finished pr' = Qtrue then Returns r pr' h'
          else parse_pieces v (seen @ c) cs pr' h'
      | e \<Rightarrow> e)"

text \<open>The calls the parser makes, whoever takes them.\<close>

definition log_calls :: "ws_call list ws_callbacks" where
  "log_calls d c l = Some (l @ [view c])"

lemma view_view: "call_ok 1 c \<Longrightarrow> view (view c) = view c"
  by (cases c) simp_all

interpretation log_calls: ws_total_client log_calls d "\<lambda>l. True"
  by unfold_locales (simp_all add: log_calls_def view_view)

lemma replay_log: "replay log_calls d log l = Some (l @ map view log)"
  by (induction log arbitrary: l) (simp_all add: log_calls_def)

text \<open>How a request comes to be as it is: the calls, one after another.\<close>

definition built_by :: "ws_call list \<Rightarrow> request_view" where
  "built_by L = fold ws_spec L empty_view"

lemma ws_spec_view: "ws_spec (view c) = ws_spec c"
proof (cases c)
  case (Content_length at n)
  have "take n (take (n + 1) at) = take n at" by simp
  then show ?thesis unfolding Content_length view.simps ws_spec.simps by (simp only:)
next
  case (Method at n m)
  have "take n (take n at) = take n at" by simp
  then show ?thesis unfolding Method view.simps ws_spec.simps by (simp only:)
qed (simp_all add: fun_eq_iff)

lemma built_by_view: "built_by (map view L) = built_by L"
  unfolding built_by_def
  by (induction L rule: rev_induct) (simp_all add: ws_spec_view)

lemma log_phase_view: "log_phase (map view L) q = log_phase L q"
proof -
  have v: "call_phase (view c) = call_phase c" for c by (cases c) (simp_all add: fun_eq_iff)
  show ?thesis by (induction L arbitrary: q) (simp_all add: v split: option.split)
qed

definition ending_of :: "ws_http_request_parser \<Rightarrow> heap \<Rightarrow> ws_ending" where
  "ending_of pr h =
     Returns (if ws_http_request_parser_has_error pr then Qfalse else Fix (int (w_nread pr))) pr h"

lemma execute_class:
  assumes "own_arrays v h" and "w_nread pr < length s" and "length s < 2 ^ 31"
  shows "HttpRequestParser_execute pr v (Str s) (HttpRequestParser_nread pr) h =
    (case ws_http_request_parser_execute ws_ruby (pr\<lparr>w_data := Some v\<rparr>) h (s @ NUL) (length s) (w_nread pr) of
       None \<Rightarrow> Aborts
     | Some (pr', h') \<Rightarrow> ending_of pr' h')"
proof -
  have "hash_of v h \<noteq> None" using assms(1) by (auto simp: own_arrays_def owns_def)
  then show ?thesis
    using assms by (simp add: HttpRequestParser_execute_def HttpRequestParser_nread_def ending_of_def
        split: option.split)
qed

lemma ws_done_fields [simp]:
  "w_cs (ws_done b len off cs p pr) = cs" "w_data (ws_done b len off cs p pr) = w_data pr"
  "w_nread (ws_done b len off cs p pr) = w_nread pr + (p - off)"
  by (simp_all add: ws_done_def Let_def)

lemma done_eqs:
  "ws_http_request_parser_has_error pr \<longleftrightarrow> w_cs pr = 0"
  "ws_http_request_parser_is_finished pr \<longleftrightarrow> w_cs pr = 442"
  by (simp_all add: ws_http_request_parser_has_error_def ws_http_request_parser_error_def
      ws_http_request_parser_is_finished_def ws_http_request_parser_first_final_def)

text \<open>
  What is true of the parser and the request at the end of a call, after the calls \<open>L\<close>, when the
  buffer has been \<open>s\<close>.
\<close>

definition after_run ::
  "rval \<Rightarrow> string \<Rightarrow> ws_http_request_parser \<Rightarrow> heap \<Rightarrow> ws_call list \<Rightarrow> bool" where
  "after_run v s pr h L \<longleftrightarrow>
     own_arrays v h \<and> view_of v h = built_by L \<and> list_all (call_ok 1) L \<and> w_nread pr \<le> length s \<and>
     w_data pr = Some v \<and>
     (w_cs pr = 442 \<longrightarrow> log_phase L 0 = Some 6) \<and>
     (w_cs pr = 0 \<longrightarrow> (\<exists>w c rest. s = w @ c # rest \<and>
        w_error_pos pr = int (length w) \<and>
        HttpRequestParser_error pr = Some (Str (shown_error s (length w))))) \<and>
     (w_cs pr \<noteq> 0 \<and> w_cs pr \<noteq> 442 \<longrightarrow> ws.reading s pr L)"

lemma error_shown:
  assumes "q < length s" and "length s < 2 ^ 31"
  shows "w_error_pos (ws_done (s @ NUL) (length s) off 0 q pr) = int q \<and>
    HttpRequestParser_error (ws_done (s @ NUL) (length s) off 0 q pr) = Some (Str (shown_error s q))"
proof -
  have "to_c_int (int q) = int q" using assms by (simp add: to_c_int_def)
  then show ?thesis
    using parsing_error_shown [OF assms(1), of NUL]
    by (simp add: HttpRequestParser_error_def ws_done_def Let_def ws_http_request_parser_has_error_def
        ws_http_request_parser_error_def)
qed

lemma split_at_index: "q < length s \<Longrightarrow> \<exists>w x rest. s = w @ x # rest \<and> length w = q"
  by (intro exI [of _ "take q s"] exI [of _ "s ! q"] exI [of _ "drop (Suc q) s"])
    (simp add: id_take_nth_drop [symmetric])

lemma run_after:
  assumes rd: "ws.reading seen pr L" and own: "own_arrays v h" and d: "w_data pr = Some v"
    and view: "view_of v h = built_by L" and ok: "list_all (call_ok 1) L"
    and c: "c \<noteq> []" and len: "length (seen @ c) < 2 ^ 31"
  obtains pr' h' log where
    "ws_http_request_parser_execute ws_ruby pr h ((seen @ c) @ NUL) (length (seen @ c)) (w_nread pr) =
       Some (pr', h')"
    "ws_http_request_parser_execute log_calls pr (map view L) ((seen @ c) @ NUL) (length (seen @ c))
       (w_nread pr) = Some (pr', map view (L @ log))"
    "after_run v (seen @ c) pr' h' (L @ log)"
    "\<exists>q pr1. ws_trace (seen @ c @ NUL) (w_cs pr) (length seen) c pr = Some (w_cs pr', q, pr1, log)"
proof -
  have len': "length (seen @ c @ NUL) < 2 ^ 63" using len by (simp add: NUL_def)
  obtain cs q pr' log where
      ex: "\<And>(cb :: heap ws_callbacks) h. ws_http_request_parser_execute cb pr h (seen @ c @ NUL) (length (seen @ c)) (w_nread pr) =
       map_option (Pair (ws_done (seen @ c @ NUL) (length (seen @ c)) (length seen) cs q pr'))
         (replay cb (w_data pr) log h)"
    and t: "ws_trace (seen @ c @ NUL) (w_cs pr) (length seen) c pr = Some (cs, q, pr', log)"
    and ok': "list_all (call_ok 1) log" and q: "length seen \<le> q" "q \<le> length (seen @ c)"
    and d': "w_data pr' = w_data pr" and n': "w_nread pr' = length seen"
    and res: "cs = 0 \<or> cs = 442 \<or> cs \<noteq> 0 \<and> cs \<noteq> 442 \<and> q = length (seen @ c) \<and>
       ws.reading (seen @ c) (ws_done (seen @ c @ NUL) (length (seen @ c)) (length seen) cs q pr') (L @ log)"
    and at: "cs \<noteq> 0 \<longrightarrow> ws.at_char (seen @ c @ NUL) q cs pr' (L @ log)"
    and err: "cs = 0 \<longrightarrow> q < length (seen @ c)"
    by (rule ws.execute_run [OF rd c len']) (rule that)
  obtain cs2 q2 pr2 log2 where
      exl: "\<And>(cb :: ws_call list ws_callbacks) h. ws_http_request_parser_execute cb pr h (seen @ c @ NUL) (length (seen @ c)) (w_nread pr) =
       map_option (Pair (ws_done (seen @ c @ NUL) (length (seen @ c)) (length seen) cs2 q2 pr2))
         (replay cb (w_data pr) log2 h)"
    and t2: "ws_trace (seen @ c @ NUL) (w_cs pr) (length seen) c pr = Some (cs2, q2, pr2, log2)"
    by (rule ws.execute_run [OF rd c len']) (rule that)
  have same: "cs2 = cs" "q2 = q" "pr2 = pr'" "log2 = log" using t t2 by simp_all
  let ?pr = "ws_done (seen @ c @ NUL) (length (seen @ c)) (length seen) cs q pr'"
  obtain h' where h': "replay ws_ruby (w_data pr) log h = Some h'"
    using ruby.replay_total [OF ok' own] d by auto
  have spec: "own_arrays v h'" "view_of v h' = built_by (L @ log)"
    using ws_replay_spec [OF own ok'] h' d view by (simp_all add: built_by_def)
  have fin: "log_phase (L @ log) 0 = Some 6" if "cs = 442"
    using at that ws_certificate_15 by (auto simp: ws.at_char_def ws_holds_def ws_fact_def)
  have err': "\<exists>w x rest. seen @ c = w @ x # rest \<and> w_error_pos ?pr = int (length w) \<and>
      HttpRequestParser_error ?pr = Some (Str (shown_error (seen @ c) (length w)))" if "cs = 0"
    using that err error_shown [OF _ len, of q "length seen" pr'] split_at_index [of q "seen @ c"]
    by auto
  have "after_run v (seen @ c) ?pr h' (L @ log)"
    unfolding after_run_def using spec ok ok' q n' d d' fin err' res by auto
  moreover have "ws_http_request_parser_execute ws_ruby pr h ((seen @ c) @ NUL) (length (seen @ c)) (w_nread pr) =
       Some (?pr, h')" using ex h' by simp
  moreover have "ws_http_request_parser_execute log_calls pr (map view L) ((seen @ c) @ NUL)
      (length (seen @ c)) (w_nread pr) = Some (?pr, map view (L @ log))"
    using exl same by (simp add: replay_log)
  moreover have "\<exists>q pr1. ws_trace (seen @ c @ NUL) (w_cs pr) (length seen) c pr = Some (w_cs ?pr, q, pr1, log)"
    using t by simp
  ultimately show thesis by (intro that)
qed

lemma ws_feed_stop: "w_cs pr = 0 \<or> w_cs pr = 442 \<Longrightarrow> ws_feed cb seen cs pr x = Some (pr, x)"
  by (cases cs) (auto simp: done_eqs)

text \<open>Feeding the pieces to the class is feeding them to the parser.\<close>

lemma pieces_run:
  assumes "ws.reading seen pr L" and "own_arrays v h" and "w_data pr = Some v"
    and "view_of v h = built_by L" and "list_all (call_ok 1) L"
    and "[] \<notin> set cs" and "length (seen @ concat cs) < 2 ^ 31"
  shows "\<exists>pr' h' L' s. ws_feed ws_ruby seen cs pr h = Some (pr', h') \<and>
    ws_feed log_calls seen cs pr (map view L) = Some (pr', map view L') \<and>
    parse_pieces v seen cs pr h = ending_of pr' h' \<and>
    prefix s (seen @ concat cs) \<and> after_run v s pr' h' L' \<and>
    (w_cs pr' \<noteq> 0 \<and> w_cs pr' \<noteq> 442 \<longrightarrow> s = seen @ concat cs)"
  using assms
proof (induction cs arbitrary: seen pr L h)
  case Nil
  then have cs: "w_cs pr \<noteq> 0" "w_cs pr \<noteq> 442" "w_nread pr = length seen"
    by (auto simp: ws.reading_def ws.at_char_def)
  then have "after_run v seen pr h L" using Nil by (simp add: after_run_def)
  then show ?case using cs
    by (intro exI [of _ pr] exI [of _ h] exI [of _ L] exI [of _ seen])
      (simp add: ending_of_def HttpRequestParser_nread_def done_eqs)
next
  case (Cons c cs)
  have c: "c \<noteq> []" and len: "length (seen @ c) < 2 ^ 31" using Cons.prems by auto
  have go: "w_cs pr \<noteq> 0" "w_cs pr \<noteq> 442" "w_nread pr = length seen"
    using Cons.prems(1) by (auto simp: ws.reading_def ws.at_char_def)
  obtain pr1 h1 log where
      ex: "ws_http_request_parser_execute ws_ruby pr h ((seen @ c) @ NUL) (length (seen @ c)) (w_nread pr) =
        Some (pr1, h1)"
    and exl: "ws_http_request_parser_execute log_calls pr (map view L) ((seen @ c) @ NUL) (length (seen @ c))
       (w_nread pr) = Some (pr1, map view (L @ log))"
    and aft: "after_run v (seen @ c) pr1 h1 (L @ log)"
    by (rule run_after [OF Cons.prems(1-5) c len]) (rule that)
  have "pr\<lparr>w_data := Some v\<rparr> = pr" using Cons.prems(3) by simp
  then have cls: "HttpRequestParser_execute pr v (Str (seen @ c)) (HttpRequestParser_nread pr) h = ending_of pr1 h1"
    using execute_class [OF Cons.prems(2) _ len, of pr] c go ex by simp
  show ?case
  proof (cases "w_cs pr1 = 0 \<or> w_cs pr1 = 442")
    case True
    then show ?thesis
      using True ex exl cls aft go
      by (intro exI [of _ pr1] exI [of _ h1] exI [of _ "L @ log"] exI [of _ "seen @ c"])
        (auto simp: ws_feed_stop done_eqs ending_of_def HttpRequestParser_is_finished_def)
  next
    case False
    then have rd: "ws.reading (seen @ c) pr1 (L @ log)" and own: "own_arrays v h1"
      and d: "w_data pr1 = Some v" and vw: "view_of v h1 = built_by (L @ log)"
      and ok: "list_all (call_ok 1) (L @ log)"
      using aft by (auto simp: after_run_def)
    have "[] \<notin> set cs" "length ((seen @ c) @ concat cs) < 2 ^ 31" using Cons.prems(6,7) by simp_all
    from Cons.IH [OF rd own d vw ok this] obtain pr' h' L' s where IH:
        "ws_feed ws_ruby (seen @ c) cs pr1 h1 = Some (pr', h')"
        "ws_feed log_calls (seen @ c) cs pr1 (map view (L @ log)) = Some (pr', map view L')"
        "parse_pieces v (seen @ c) cs pr1 h1 = ending_of pr' h'"
        "prefix s ((seen @ c) @ concat cs)" "after_run v s pr' h' L'"
        "w_cs pr' \<noteq> 0 \<and> w_cs pr' \<noteq> 442 \<longrightarrow> s = (seen @ c) @ concat cs" by blast
    have "ws_feed ws_ruby seen (c # cs) pr h = Some (pr', h')"
      using go ex IH(1) by (simp add: done_eqs)
    moreover have "ws_feed log_calls seen (c # cs) pr (map view L) = Some (pr', map view L')"
      using go exl IH(2) by (simp add: done_eqs)
    moreover have "parse_pieces v seen (c # cs) pr h = ending_of pr' h'"
      using cls IH(3) False by (simp add: ending_of_def done_eqs HttpRequestParser_is_finished_def)
    ultimately show ?thesis using IH(4-6) by auto
  qed
qed

text \<open>From a new parser and a new request on.\<close>

lemma new_parser_reading:
  "ws.reading [] ((HttpRequestParser_init pr)\<lparr>w_data := Some v\<rparr>) []"
  unfolding HttpRequestParser_init_def by (rule ws.init_reading)

lemma pieces_data:
  assumes "cs \<noteq> []"
  shows "parse_pieces v seen cs (pr\<lparr>w_data := Some v\<rparr>) h = parse_pieces v seen cs pr h"
proof -
  have "HttpRequestParser_execute (pr\<lparr>w_data := Some v\<rparr>) v b n h = HttpRequestParser_execute pr v b n h" for b n
    by (simp add: HttpRequestParser_execute_def split: ruby_value.split)
  then show ?thesis using assms by (cases cs) (simp_all add: HttpRequestParser_nread_def)
qed

lemma new_pieces_run:
  assumes "rb_new (new_robj k (HashB [])) h0 = (h, v)" and "cs \<noteq> []" and "[] \<notin> set cs"
    and "length (concat cs) < 2 ^ 31"
  obtains pr' h' L s where
    "ws_feed ws_ruby [] cs ((HttpRequestParser_init pr)\<lparr>w_data := Some v\<rparr>) h = Some (pr', h')"
    "ws_feed log_calls [] cs ((HttpRequestParser_init pr)\<lparr>w_data := Some v\<rparr>) [] = Some (pr', map view L)"
    "parse_pieces v [] cs (HttpRequestParser_init pr) h = ending_of pr' h'"
    "prefix s (concat cs)" "after_run v s pr' h' L"
    "w_cs pr' \<noteq> 0 \<and> w_cs pr' \<noteq> 442 \<longrightarrow> s = concat cs"
proof -
  have "own_arrays v h" "view_of v h = built_by []"
    using new_request [OF assms(1)] by (simp_all add: built_by_def)
  from pieces_run [OF new_parser_reading this(1) _ this(2) _ assms(3)] assms(4)
  show thesis using that pieces_data [OF assms(2)] by fastforce
qed

end
