(* ===== verification/Ws_Http_Guide.thy ===== *)
theory Ws_Http_Guide
  imports Ws_Http_Rows
begin

text \<open>
  A way out of every state of ext/websocket_http_parser/ws_http_parser.c: a character that leads
  one step nearer to the final state, and how many steps there are, which is at most 16.
\<close>

definition ws_guide_1 :: "(int \<times> nat) list" where
  "ws_guide_1 =
    [(33, 16), (32, 15), (47, 14), (32, 13), (72, 12), (84, 11), (84, 10), (80, 9), (47, 8),
     (48, 7), (46, 6), (48, 5), (13, 4), (10, 3), (13, 2), (10, 1), (58, 5), (58, 5), (13, 4),
     (13, 4), (10, 3), (13, 2), (58, 5), (58, 5), (58, 5), (58, 5), (58, 5), (58, 5), (58, 5),
     (58, 5)]"

definition ws_guide_2 :: "(int \<times> nat) list" where
  "ws_guide_2 =
    [(58, 5), (33, 6), (58, 6), (33, 5), (10, 7), (32, 6), (33, 5), (13, 4), (44, 6), (10, 8),
     (32, 7), (44, 6), (33, 5), (10, 7), (32, 6), (33, 5), (10, 3), (13, 2), (58, 5), (58, 5),
     (58, 5), (33, 6), (58, 6), (65, 5), (10, 7), (32, 6), (65, 5), (46, 6), (48, 7), (46, 6)]"

definition ws_guide_3 :: "(int \<times> nat) list" where
  "ws_guide_3 =
    [(65, 5), (13, 4), (48, 5), (13, 4), (49, 5), (49, 5), (49, 5), (49, 5), (13, 4), (13, 4),
     (13, 4), (13, 4), (13, 4), (13, 4), (13, 4), (13, 4), (13, 4), (65, 5), (46, 6), (65, 5),
     (46, 6), (48, 5), (13, 4), (13, 4), (13, 4), (13, 4), (13, 4), (46, 6), (46, 6), (46, 6)]"

definition ws_guide_4 :: "(int \<times> nat) list" where
  "ws_guide_4 =
    [(46, 6), (46, 6), (46, 6), (46, 6), (46, 6), (46, 6), (46, 6), (46, 6), (46, 6), (58, 7),
     (58, 7), (58, 7), (58, 7), (58, 7), (58, 6), (58, 7), (58, 7), (58, 7), (58, 7), (58, 6),
     (58, 7), (58, 7), (58, 7), (58, 7), (58, 6), (58, 7), (58, 7), (58, 7), (58, 7), (58, 6)]"

definition ws_guide_5 :: "(int \<times> nat) list" where
  "ws_guide_5 =
    [(58, 7), (58, 7), (58, 7), (58, 7), (58, 6), (58, 7), (58, 7), (58, 7), (58, 7), (58, 6),
     (58, 7), (48, 10), (46, 9), (48, 8), (46, 7), (48, 6), (93, 5), (13, 4), (93, 5), (93, 5),
     (93, 5), (93, 5), (46, 7), (46, 7), (46, 7), (46, 7), (46, 9), (46, 9), (46, 9), (46, 9)]"

definition ws_guide_6 :: "(int \<times> nat) list" where
  "ws_guide_6 =
    [(58, 7), (58, 7), (58, 7), (48, 6), (93, 5), (93, 5), (93, 5), (58, 7), (58, 7), (58, 7),
     (58, 7), (58, 7), (58, 7), (58, 7), (93, 5), (58, 7), (93, 5), (93, 5), (93, 5), (93, 5),
     (93, 5), (48, 6), (93, 5), (93, 5), (93, 5), (93, 5), (93, 5), (93, 5), (93, 5), (93, 5)]"

definition ws_guide_7 :: "(int \<times> nat) list" where
  "ws_guide_7 =
    [(93, 5), (93, 5), (93, 5), (93, 5), (93, 5), (48, 6), (93, 5), (93, 5), (93, 5), (93, 5),
     (93, 5), (93, 5), (93, 5), (93, 5), (93, 5), (93, 5), (93, 5), (93, 5), (93, 5), (48, 6),
     (93, 5), (93, 5), (93, 5), (93, 5), (93, 5), (93, 5), (93, 5), (93, 5), (93, 5), (93, 5)]"

definition ws_guide_8 :: "(int \<times> nat) list" where
  "ws_guide_8 =
    [(93, 5), (93, 5), (93, 5), (48, 6), (93, 5), (93, 5), (93, 5), (93, 5), (93, 5), (93, 5),
     (93, 5), (93, 5), (93, 5), (93, 5), (93, 5), (93, 5), (93, 5), (48, 6), (93, 5), (93, 5),
     (93, 5), (93, 5), (93, 5), (93, 5), (93, 5), (93, 5), (58, 6), (93, 5), (93, 5), (93, 5)]"

definition ws_guide_9 :: "(int \<times> nat) list" where
  "ws_guide_9 =
    [(93, 5), (93, 5), (48, 6), (93, 5), (93, 5), (93, 5), (93, 5), (93, 5), (93, 5), (93, 5),
     (93, 5), (58, 5), (58, 5), (58, 5), (58, 5), (58, 5), (33, 6), (58, 6), (33, 5), (10, 7),
     (32, 6), (33, 5), (13, 4), (58, 5), (58, 5), (58, 5), (58, 5), (58, 5), (58, 5), (58, 5)]"

definition ws_guide_10 :: "(int \<times> nat) list" where
  "ws_guide_10 =
    [(58, 5), (58, 5), (58, 5), (58, 5), (58, 5), (58, 5), (58, 5), (58, 5), (58, 5), (33, 6),
     (58, 6), (33, 5), (10, 7), (32, 6), (33, 5), (13, 4), (13, 4), (13, 4), (13, 4), (13, 4),
     (13, 4), (13, 4), (13, 4), (13, 4), (13, 4), (13, 4), (13, 4), (13, 4), (13, 4), (13, 4)]"

definition ws_guide_11 :: "(int \<times> nat) list" where
  "ws_guide_11 =
    [(13, 4), (13, 4), (13, 4), (13, 4), (13, 4), (13, 4), (13, 4), (13, 4), (13, 4), (13, 4),
     (13, 4), (13, 4), (13, 4), (13, 4), (13, 4), (13, 4), (13, 4), (13, 4), (13, 4), (13, 4),
     (13, 4), (13, 4), (13, 4), (13, 4), (13, 4), (13, 4), (13, 4), (13, 4), (13, 4), (13, 4)]"

definition ws_guide_12 :: "(int \<times> nat) list" where
  "ws_guide_12 =
    [(13, 4), (13, 4), (13, 4), (13, 4), (13, 4), (58, 5), (58, 5), (58, 5), (58, 5), (58, 5),
     (58, 5), (58, 5), (33, 6), (58, 6), (33, 5), (10, 7), (32, 6), (33, 5), (13, 4), (44, 6),
     (10, 8), (32, 7), (44, 6), (33, 5), (10, 7), (32, 6), (33, 5), (10, 3), (13, 2), (58, 5)]"

definition ws_guide_13 :: "(int \<times> nat) list" where
  "ws_guide_13 =
    [(58, 5), (58, 5), (58, 5), (58, 5), (58, 5), (33, 6), (58, 6), (33, 5), (10, 7), (32, 6),
     (33, 5), (13, 4), (58, 5), (58, 5), (58, 5), (58, 5), (58, 5), (58, 5), (33, 6), (58, 6),
     (48, 5), (10, 7), (32, 6), (48, 5), (13, 4), (13, 4), (13, 4), (58, 5), (58, 5), (58, 5)]"

definition ws_guide_14 :: "(int \<times> nat) list" where
  "ws_guide_14 =
    [(58, 5), (58, 5), (58, 5), (58, 5), (58, 5), (58, 5), (58, 5), (33, 6), (58, 6), (48, 5),
     (10, 7), (32, 6), (48, 5), (13, 4), (13, 4), (13, 4), (13, 4), (13, 4), (13, 4), (13, 4),
     (13, 4), (13, 4), (10, 3), (13, 2), (13, 4), (13, 4), (46, 6), (32, 13), (32, 13), (48, 15)]"

definition ws_guide_15 :: "(int \<times> nat) list" where
  "ws_guide_15 =
    [(48, 14), (48, 15), (48, 14), (32, 13), (32, 13), (48, 15), (48, 14), (32, 15), (32, 15),
     (32, 15), (32, 15), (32, 15), (32, 15), (32, 15), (32, 15), (32, 15), (32, 15), (32, 15),
     (32, 15), (32, 15), (32, 15), (0, 0)]"

definition ws_guide_blocks :: "(int \<times> nat) list list" where
  "ws_guide_blocks =
    [ws_guide_1, ws_guide_2, ws_guide_3, ws_guide_4, ws_guide_5, ws_guide_6,
     ws_guide_7, ws_guide_8, ws_guide_9, ws_guide_10, ws_guide_11, ws_guide_12,
     ws_guide_13, ws_guide_14, ws_guide_15]"

definition ws_guide :: "int \<Rightarrow> int \<times> nat" where
  "ws_guide cs = ws_guide_blocks ! nat ((cs - 1) div 30) ! nat ((cs - 1) mod 30)"

lemma ws_guide_at_1:
  "ws_guide 1 = (33, 16)"
  "ws_guide 2 = (32, 15)"
  "ws_guide 3 = (47, 14)"
  "ws_guide 4 = (32, 13)"
  "ws_guide 5 = (72, 12)"
  "ws_guide 6 = (84, 11)"
  "ws_guide 7 = (84, 10)"
  "ws_guide 8 = (80, 9)"
  "ws_guide 9 = (47, 8)"
  "ws_guide 10 = (48, 7)"
  "ws_guide 11 = (46, 6)"
  "ws_guide 12 = (48, 5)"
  "ws_guide 13 = (13, 4)"
  "ws_guide 14 = (10, 3)"
  "ws_guide 15 = (13, 2)"
  "ws_guide 16 = (10, 1)"
  "ws_guide 17 = (58, 5)"
  "ws_guide 18 = (58, 5)"
  "ws_guide 19 = (13, 4)"
  "ws_guide 20 = (13, 4)"
  "ws_guide 21 = (10, 3)"
  "ws_guide 22 = (13, 2)"
  "ws_guide 23 = (58, 5)"
  "ws_guide 24 = (58, 5)"
  "ws_guide 25 = (58, 5)"
  "ws_guide 26 = (58, 5)"
  "ws_guide 27 = (58, 5)"
  "ws_guide 28 = (58, 5)"
  "ws_guide 29 = (58, 5)"
  "ws_guide 30 = (58, 5)"
  by (simp_all add: ws_guide_def ws_guide_blocks_def ws_guide_1_def)

lemma ws_guide_at_2:
  "ws_guide 31 = (58, 5)"
  "ws_guide 32 = (33, 6)"
  "ws_guide 33 = (58, 6)"
  "ws_guide 34 = (33, 5)"
  "ws_guide 35 = (10, 7)"
  "ws_guide 36 = (32, 6)"
  "ws_guide 37 = (33, 5)"
  "ws_guide 38 = (13, 4)"
  "ws_guide 39 = (44, 6)"
  "ws_guide 40 = (10, 8)"
  "ws_guide 41 = (32, 7)"
  "ws_guide 42 = (44, 6)"
  "ws_guide 43 = (33, 5)"
  "ws_guide 44 = (10, 7)"
  "ws_guide 45 = (32, 6)"
  "ws_guide 46 = (33, 5)"
  "ws_guide 47 = (10, 3)"
  "ws_guide 48 = (13, 2)"
  "ws_guide 49 = (58, 5)"
  "ws_guide 50 = (58, 5)"
  "ws_guide 51 = (58, 5)"
  "ws_guide 52 = (33, 6)"
  "ws_guide 53 = (58, 6)"
  "ws_guide 54 = (65, 5)"
  "ws_guide 55 = (10, 7)"
  "ws_guide 56 = (32, 6)"
  "ws_guide 57 = (65, 5)"
  "ws_guide 58 = (46, 6)"
  "ws_guide 59 = (48, 7)"
  "ws_guide 60 = (46, 6)"
  by (simp_all add: ws_guide_def ws_guide_blocks_def ws_guide_2_def)

lemma ws_guide_at_3:
  "ws_guide 61 = (65, 5)"
  "ws_guide 62 = (13, 4)"
  "ws_guide 63 = (48, 5)"
  "ws_guide 64 = (13, 4)"
  "ws_guide 65 = (49, 5)"
  "ws_guide 66 = (49, 5)"
  "ws_guide 67 = (49, 5)"
  "ws_guide 68 = (49, 5)"
  "ws_guide 69 = (13, 4)"
  "ws_guide 70 = (13, 4)"
  "ws_guide 71 = (13, 4)"
  "ws_guide 72 = (13, 4)"
  "ws_guide 73 = (13, 4)"
  "ws_guide 74 = (13, 4)"
  "ws_guide 75 = (13, 4)"
  "ws_guide 76 = (13, 4)"
  "ws_guide 77 = (13, 4)"
  "ws_guide 78 = (65, 5)"
  "ws_guide 79 = (46, 6)"
  "ws_guide 80 = (65, 5)"
  "ws_guide 81 = (46, 6)"
  "ws_guide 82 = (48, 5)"
  "ws_guide 83 = (13, 4)"
  "ws_guide 84 = (13, 4)"
  "ws_guide 85 = (13, 4)"
  "ws_guide 86 = (13, 4)"
  "ws_guide 87 = (13, 4)"
  "ws_guide 88 = (46, 6)"
  "ws_guide 89 = (46, 6)"
  "ws_guide 90 = (46, 6)"
  by (simp_all add: ws_guide_def ws_guide_blocks_def ws_guide_3_def)

lemma ws_guide_at_4:
  "ws_guide 91 = (46, 6)"
  "ws_guide 92 = (46, 6)"
  "ws_guide 93 = (46, 6)"
  "ws_guide 94 = (46, 6)"
  "ws_guide 95 = (46, 6)"
  "ws_guide 96 = (46, 6)"
  "ws_guide 97 = (46, 6)"
  "ws_guide 98 = (46, 6)"
  "ws_guide 99 = (46, 6)"
  "ws_guide 100 = (58, 7)"
  "ws_guide 101 = (58, 7)"
  "ws_guide 102 = (58, 7)"
  "ws_guide 103 = (58, 7)"
  "ws_guide 104 = (58, 7)"
  "ws_guide 105 = (58, 6)"
  "ws_guide 106 = (58, 7)"
  "ws_guide 107 = (58, 7)"
  "ws_guide 108 = (58, 7)"
  "ws_guide 109 = (58, 7)"
  "ws_guide 110 = (58, 6)"
  "ws_guide 111 = (58, 7)"
  "ws_guide 112 = (58, 7)"
  "ws_guide 113 = (58, 7)"
  "ws_guide 114 = (58, 7)"
  "ws_guide 115 = (58, 6)"
  "ws_guide 116 = (58, 7)"
  "ws_guide 117 = (58, 7)"
  "ws_guide 118 = (58, 7)"
  "ws_guide 119 = (58, 7)"
  "ws_guide 120 = (58, 6)"
  by (simp_all add: ws_guide_def ws_guide_blocks_def ws_guide_4_def)

lemma ws_guide_at_5:
  "ws_guide 121 = (58, 7)"
  "ws_guide 122 = (58, 7)"
  "ws_guide 123 = (58, 7)"
  "ws_guide 124 = (58, 7)"
  "ws_guide 125 = (58, 6)"
  "ws_guide 126 = (58, 7)"
  "ws_guide 127 = (58, 7)"
  "ws_guide 128 = (58, 7)"
  "ws_guide 129 = (58, 7)"
  "ws_guide 130 = (58, 6)"
  "ws_guide 131 = (58, 7)"
  "ws_guide 132 = (48, 10)"
  "ws_guide 133 = (46, 9)"
  "ws_guide 134 = (48, 8)"
  "ws_guide 135 = (46, 7)"
  "ws_guide 136 = (48, 6)"
  "ws_guide 137 = (93, 5)"
  "ws_guide 138 = (13, 4)"
  "ws_guide 139 = (93, 5)"
  "ws_guide 140 = (93, 5)"
  "ws_guide 141 = (93, 5)"
  "ws_guide 142 = (93, 5)"
  "ws_guide 143 = (46, 7)"
  "ws_guide 144 = (46, 7)"
  "ws_guide 145 = (46, 7)"
  "ws_guide 146 = (46, 7)"
  "ws_guide 147 = (46, 9)"
  "ws_guide 148 = (46, 9)"
  "ws_guide 149 = (46, 9)"
  "ws_guide 150 = (46, 9)"
  by (simp_all add: ws_guide_def ws_guide_blocks_def ws_guide_5_def)

lemma ws_guide_at_6:
  "ws_guide 151 = (58, 7)"
  "ws_guide 152 = (58, 7)"
  "ws_guide 153 = (58, 7)"
  "ws_guide 154 = (48, 6)"
  "ws_guide 155 = (93, 5)"
  "ws_guide 156 = (93, 5)"
  "ws_guide 157 = (93, 5)"
  "ws_guide 158 = (58, 7)"
  "ws_guide 159 = (58, 7)"
  "ws_guide 160 = (58, 7)"
  "ws_guide 161 = (58, 7)"
  "ws_guide 162 = (58, 7)"
  "ws_guide 163 = (58, 7)"
  "ws_guide 164 = (58, 7)"
  "ws_guide 165 = (93, 5)"
  "ws_guide 166 = (58, 7)"
  "ws_guide 167 = (93, 5)"
  "ws_guide 168 = (93, 5)"
  "ws_guide 169 = (93, 5)"
  "ws_guide 170 = (93, 5)"
  "ws_guide 171 = (93, 5)"
  "ws_guide 172 = (48, 6)"
  "ws_guide 173 = (93, 5)"
  "ws_guide 174 = (93, 5)"
  "ws_guide 175 = (93, 5)"
  "ws_guide 176 = (93, 5)"
  "ws_guide 177 = (93, 5)"
  "ws_guide 178 = (93, 5)"
  "ws_guide 179 = (93, 5)"
  "ws_guide 180 = (93, 5)"
  by (simp_all add: ws_guide_def ws_guide_blocks_def ws_guide_6_def)

lemma ws_guide_at_7:
  "ws_guide 181 = (93, 5)"
  "ws_guide 182 = (93, 5)"
  "ws_guide 183 = (93, 5)"
  "ws_guide 184 = (93, 5)"
  "ws_guide 185 = (93, 5)"
  "ws_guide 186 = (48, 6)"
  "ws_guide 187 = (93, 5)"
  "ws_guide 188 = (93, 5)"
  "ws_guide 189 = (93, 5)"
  "ws_guide 190 = (93, 5)"
  "ws_guide 191 = (93, 5)"
  "ws_guide 192 = (93, 5)"
  "ws_guide 193 = (93, 5)"
  "ws_guide 194 = (93, 5)"
  "ws_guide 195 = (93, 5)"
  "ws_guide 196 = (93, 5)"
  "ws_guide 197 = (93, 5)"
  "ws_guide 198 = (93, 5)"
  "ws_guide 199 = (93, 5)"
  "ws_guide 200 = (48, 6)"
  "ws_guide 201 = (93, 5)"
  "ws_guide 202 = (93, 5)"
  "ws_guide 203 = (93, 5)"
  "ws_guide 204 = (93, 5)"
  "ws_guide 205 = (93, 5)"
  "ws_guide 206 = (93, 5)"
  "ws_guide 207 = (93, 5)"
  "ws_guide 208 = (93, 5)"
  "ws_guide 209 = (93, 5)"
  "ws_guide 210 = (93, 5)"
  by (simp_all add: ws_guide_def ws_guide_blocks_def ws_guide_7_def)

lemma ws_guide_at_8:
  "ws_guide 211 = (93, 5)"
  "ws_guide 212 = (93, 5)"
  "ws_guide 213 = (93, 5)"
  "ws_guide 214 = (48, 6)"
  "ws_guide 215 = (93, 5)"
  "ws_guide 216 = (93, 5)"
  "ws_guide 217 = (93, 5)"
  "ws_guide 218 = (93, 5)"
  "ws_guide 219 = (93, 5)"
  "ws_guide 220 = (93, 5)"
  "ws_guide 221 = (93, 5)"
  "ws_guide 222 = (93, 5)"
  "ws_guide 223 = (93, 5)"
  "ws_guide 224 = (93, 5)"
  "ws_guide 225 = (93, 5)"
  "ws_guide 226 = (93, 5)"
  "ws_guide 227 = (93, 5)"
  "ws_guide 228 = (48, 6)"
  "ws_guide 229 = (93, 5)"
  "ws_guide 230 = (93, 5)"
  "ws_guide 231 = (93, 5)"
  "ws_guide 232 = (93, 5)"
  "ws_guide 233 = (93, 5)"
  "ws_guide 234 = (93, 5)"
  "ws_guide 235 = (93, 5)"
  "ws_guide 236 = (93, 5)"
  "ws_guide 237 = (58, 6)"
  "ws_guide 238 = (93, 5)"
  "ws_guide 239 = (93, 5)"
  "ws_guide 240 = (93, 5)"
  by (simp_all add: ws_guide_def ws_guide_blocks_def ws_guide_8_def)

lemma ws_guide_at_9:
  "ws_guide 241 = (93, 5)"
  "ws_guide 242 = (93, 5)"
  "ws_guide 243 = (48, 6)"
  "ws_guide 244 = (93, 5)"
  "ws_guide 245 = (93, 5)"
  "ws_guide 246 = (93, 5)"
  "ws_guide 247 = (93, 5)"
  "ws_guide 248 = (93, 5)"
  "ws_guide 249 = (93, 5)"
  "ws_guide 250 = (93, 5)"
  "ws_guide 251 = (93, 5)"
  "ws_guide 252 = (58, 5)"
  "ws_guide 253 = (58, 5)"
  "ws_guide 254 = (58, 5)"
  "ws_guide 255 = (58, 5)"
  "ws_guide 256 = (58, 5)"
  "ws_guide 257 = (33, 6)"
  "ws_guide 258 = (58, 6)"
  "ws_guide 259 = (33, 5)"
  "ws_guide 260 = (10, 7)"
  "ws_guide 261 = (32, 6)"
  "ws_guide 262 = (33, 5)"
  "ws_guide 263 = (13, 4)"
  "ws_guide 264 = (58, 5)"
  "ws_guide 265 = (58, 5)"
  "ws_guide 266 = (58, 5)"
  "ws_guide 267 = (58, 5)"
  "ws_guide 268 = (58, 5)"
  "ws_guide 269 = (58, 5)"
  "ws_guide 270 = (58, 5)"
  by (simp_all add: ws_guide_def ws_guide_blocks_def ws_guide_9_def)

lemma ws_guide_at_10:
  "ws_guide 271 = (58, 5)"
  "ws_guide 272 = (58, 5)"
  "ws_guide 273 = (58, 5)"
  "ws_guide 274 = (58, 5)"
  "ws_guide 275 = (58, 5)"
  "ws_guide 276 = (58, 5)"
  "ws_guide 277 = (58, 5)"
  "ws_guide 278 = (58, 5)"
  "ws_guide 279 = (58, 5)"
  "ws_guide 280 = (33, 6)"
  "ws_guide 281 = (58, 6)"
  "ws_guide 282 = (33, 5)"
  "ws_guide 283 = (10, 7)"
  "ws_guide 284 = (32, 6)"
  "ws_guide 285 = (33, 5)"
  "ws_guide 286 = (13, 4)"
  "ws_guide 287 = (13, 4)"
  "ws_guide 288 = (13, 4)"
  "ws_guide 289 = (13, 4)"
  "ws_guide 290 = (13, 4)"
  "ws_guide 291 = (13, 4)"
  "ws_guide 292 = (13, 4)"
  "ws_guide 293 = (13, 4)"
  "ws_guide 294 = (13, 4)"
  "ws_guide 295 = (13, 4)"
  "ws_guide 296 = (13, 4)"
  "ws_guide 297 = (13, 4)"
  "ws_guide 298 = (13, 4)"
  "ws_guide 299 = (13, 4)"
  "ws_guide 300 = (13, 4)"
  by (simp_all add: ws_guide_def ws_guide_blocks_def ws_guide_10_def)

lemma ws_guide_at_11:
  "ws_guide 301 = (13, 4)"
  "ws_guide 302 = (13, 4)"
  "ws_guide 303 = (13, 4)"
  "ws_guide 304 = (13, 4)"
  "ws_guide 305 = (13, 4)"
  "ws_guide 306 = (13, 4)"
  "ws_guide 307 = (13, 4)"
  "ws_guide 308 = (13, 4)"
  "ws_guide 309 = (13, 4)"
  "ws_guide 310 = (13, 4)"
  "ws_guide 311 = (13, 4)"
  "ws_guide 312 = (13, 4)"
  "ws_guide 313 = (13, 4)"
  "ws_guide 314 = (13, 4)"
  "ws_guide 315 = (13, 4)"
  "ws_guide 316 = (13, 4)"
  "ws_guide 317 = (13, 4)"
  "ws_guide 318 = (13, 4)"
  "ws_guide 319 = (13, 4)"
  "ws_guide 320 = (13, 4)"
  "ws_guide 321 = (13, 4)"
  "ws_guide 322 = (13, 4)"
  "ws_guide 323 = (13, 4)"
  "ws_guide 324 = (13, 4)"
  "ws_guide 325 = (13, 4)"
  "ws_guide 326 = (13, 4)"
  "ws_guide 327 = (13, 4)"
  "ws_guide 328 = (13, 4)"
  "ws_guide 329 = (13, 4)"
  "ws_guide 330 = (13, 4)"
  by (simp_all add: ws_guide_def ws_guide_blocks_def ws_guide_11_def)

lemma ws_guide_at_12:
  "ws_guide 331 = (13, 4)"
  "ws_guide 332 = (13, 4)"
  "ws_guide 333 = (13, 4)"
  "ws_guide 334 = (13, 4)"
  "ws_guide 335 = (13, 4)"
  "ws_guide 336 = (58, 5)"
  "ws_guide 337 = (58, 5)"
  "ws_guide 338 = (58, 5)"
  "ws_guide 339 = (58, 5)"
  "ws_guide 340 = (58, 5)"
  "ws_guide 341 = (58, 5)"
  "ws_guide 342 = (58, 5)"
  "ws_guide 343 = (33, 6)"
  "ws_guide 344 = (58, 6)"
  "ws_guide 345 = (33, 5)"
  "ws_guide 346 = (10, 7)"
  "ws_guide 347 = (32, 6)"
  "ws_guide 348 = (33, 5)"
  "ws_guide 349 = (13, 4)"
  "ws_guide 350 = (44, 6)"
  "ws_guide 351 = (10, 8)"
  "ws_guide 352 = (32, 7)"
  "ws_guide 353 = (44, 6)"
  "ws_guide 354 = (33, 5)"
  "ws_guide 355 = (10, 7)"
  "ws_guide 356 = (32, 6)"
  "ws_guide 357 = (33, 5)"
  "ws_guide 358 = (10, 3)"
  "ws_guide 359 = (13, 2)"
  "ws_guide 360 = (58, 5)"
  by (simp_all add: ws_guide_def ws_guide_blocks_def ws_guide_12_def)

lemma ws_guide_at_13:
  "ws_guide 361 = (58, 5)"
  "ws_guide 362 = (58, 5)"
  "ws_guide 363 = (58, 5)"
  "ws_guide 364 = (58, 5)"
  "ws_guide 365 = (58, 5)"
  "ws_guide 366 = (33, 6)"
  "ws_guide 367 = (58, 6)"
  "ws_guide 368 = (33, 5)"
  "ws_guide 369 = (10, 7)"
  "ws_guide 370 = (32, 6)"
  "ws_guide 371 = (33, 5)"
  "ws_guide 372 = (13, 4)"
  "ws_guide 373 = (58, 5)"
  "ws_guide 374 = (58, 5)"
  "ws_guide 375 = (58, 5)"
  "ws_guide 376 = (58, 5)"
  "ws_guide 377 = (58, 5)"
  "ws_guide 378 = (58, 5)"
  "ws_guide 379 = (33, 6)"
  "ws_guide 380 = (58, 6)"
  "ws_guide 381 = (48, 5)"
  "ws_guide 382 = (10, 7)"
  "ws_guide 383 = (32, 6)"
  "ws_guide 384 = (48, 5)"
  "ws_guide 385 = (13, 4)"
  "ws_guide 386 = (13, 4)"
  "ws_guide 387 = (13, 4)"
  "ws_guide 388 = (58, 5)"
  "ws_guide 389 = (58, 5)"
  "ws_guide 390 = (58, 5)"
  by (simp_all add: ws_guide_def ws_guide_blocks_def ws_guide_13_def)

lemma ws_guide_at_14:
  "ws_guide 391 = (58, 5)"
  "ws_guide 392 = (58, 5)"
  "ws_guide 393 = (58, 5)"
  "ws_guide 394 = (58, 5)"
  "ws_guide 395 = (58, 5)"
  "ws_guide 396 = (58, 5)"
  "ws_guide 397 = (58, 5)"
  "ws_guide 398 = (33, 6)"
  "ws_guide 399 = (58, 6)"
  "ws_guide 400 = (48, 5)"
  "ws_guide 401 = (10, 7)"
  "ws_guide 402 = (32, 6)"
  "ws_guide 403 = (48, 5)"
  "ws_guide 404 = (13, 4)"
  "ws_guide 405 = (13, 4)"
  "ws_guide 406 = (13, 4)"
  "ws_guide 407 = (13, 4)"
  "ws_guide 408 = (13, 4)"
  "ws_guide 409 = (13, 4)"
  "ws_guide 410 = (13, 4)"
  "ws_guide 411 = (13, 4)"
  "ws_guide 412 = (13, 4)"
  "ws_guide 413 = (10, 3)"
  "ws_guide 414 = (13, 2)"
  "ws_guide 415 = (13, 4)"
  "ws_guide 416 = (13, 4)"
  "ws_guide 417 = (46, 6)"
  "ws_guide 418 = (32, 13)"
  "ws_guide 419 = (32, 13)"
  "ws_guide 420 = (48, 15)"
  by (simp_all add: ws_guide_def ws_guide_blocks_def ws_guide_14_def)

lemma ws_guide_at_15:
  "ws_guide 421 = (48, 14)"
  "ws_guide 422 = (48, 15)"
  "ws_guide 423 = (48, 14)"
  "ws_guide 424 = (32, 13)"
  "ws_guide 425 = (32, 13)"
  "ws_guide 426 = (48, 15)"
  "ws_guide 427 = (48, 14)"
  "ws_guide 428 = (32, 15)"
  "ws_guide 429 = (32, 15)"
  "ws_guide 430 = (32, 15)"
  "ws_guide 431 = (32, 15)"
  "ws_guide 432 = (32, 15)"
  "ws_guide 433 = (32, 15)"
  "ws_guide 434 = (32, 15)"
  "ws_guide 435 = (32, 15)"
  "ws_guide 436 = (32, 15)"
  "ws_guide 437 = (32, 15)"
  "ws_guide 438 = (32, 15)"
  "ws_guide 439 = (32, 15)"
  "ws_guide 440 = (32, 15)"
  "ws_guide 441 = (32, 15)"
  "ws_guide 442 = (0, 0)"
  by (simp_all add: ws_guide_def ws_guide_blocks_def ws_guide_15_def)

lemmas ws_guides =
  ws_guide_at_1 ws_guide_at_2 ws_guide_at_3 ws_guide_at_4 ws_guide_at_5
  ws_guide_at_6 ws_guide_at_7 ws_guide_at_8 ws_guide_at_9 ws_guide_at_10
  ws_guide_at_11 ws_guide_at_12 ws_guide_at_13 ws_guide_at_14 ws_guide_at_15

definition guide_cell :: "int \<Rightarrow> (int \<times> int list) t0_row \<Rightarrow> bool" where
  "guide_cell cs row \<longleftrightarrow>
     (case ws_guide cs of (c, n) \<Rightarrow>
        - 128 \<le> c \<and> c \<le> 127 \<and> n \<le> 16 \<and>
        (cs = 442 \<or> (case row_lookup row c of (t, as) \<Rightarrow> t \<noteq> 0 \<and> snd (ws_guide t) < n)))"

fun guide_ok :: "int \<Rightarrow> (int \<times> int list) t0_row list \<Rightarrow> bool" where
  "guide_ok cs [] = True"
| "guide_ok cs (row # rows) = (guide_cell cs row \<and> guide_ok (cs + 1) rows)"

lemma guide_ok_append: "guide_ok cs xs \<Longrightarrow> guide_ok (cs + int (length xs)) ys \<Longrightarrow> guide_ok cs (xs @ ys)"
  by (induction cs xs rule: guide_ok.induct) (auto simp: algebra_simps)

lemma guide_ok_nth: "guide_ok k rows \<Longrightarrow> i < length rows \<Longrightarrow> guide_cell (k + int i) (rows ! i)"
proof (induction k rows arbitrary: i rule: guide_ok.induct)
  case (2 cs row rows)
  show ?case
  proof (cases i)
    case (Suc j)
    have "guide_cell (cs + 1 + int j) (rows ! j)" using 2 Suc by simp
    then show ?thesis by (simp add: Suc add.assoc)
  qed (use 2 in simp)
qed simp

lemma ws_guide_ok_1: "guide_ok 1 ws_rows_1"
  by (simp add: ws_rows_1_def ws_guides guide_cell_def)

lemma ws_guide_ok_2: "guide_ok 31 ws_rows_2"
  by (simp add: ws_rows_2_def ws_guides guide_cell_def)

lemma ws_guide_ok_3: "guide_ok 61 ws_rows_3"
  by (simp add: ws_rows_3_def ws_guides guide_cell_def)

lemma ws_guide_ok_4: "guide_ok 91 ws_rows_4"
  by (simp add: ws_rows_4_def ws_guides guide_cell_def)

lemma ws_guide_ok_5: "guide_ok 121 ws_rows_5"
  by (simp add: ws_rows_5_def ws_guides guide_cell_def)

lemma ws_guide_ok_6: "guide_ok 151 ws_rows_6"
  by (simp add: ws_rows_6_def ws_guides guide_cell_def)

lemma ws_guide_ok_7: "guide_ok 181 ws_rows_7"
  by (simp add: ws_rows_7_def ws_guides guide_cell_def)

lemma ws_guide_ok_8: "guide_ok 211 ws_rows_8"
  by (simp add: ws_rows_8_def ws_guides guide_cell_def)

lemma ws_guide_ok_9: "guide_ok 241 ws_rows_9"
  by (simp add: ws_rows_9_def ws_guides guide_cell_def)

lemma ws_guide_ok_10: "guide_ok 271 ws_rows_10"
  by (simp add: ws_rows_10_def ws_guides guide_cell_def)

lemma ws_guide_ok_11: "guide_ok 301 ws_rows_11"
  by (simp add: ws_rows_11_def ws_guides guide_cell_def)

lemma ws_guide_ok_12: "guide_ok 331 ws_rows_12"
  by (simp add: ws_rows_12_def ws_guides guide_cell_def)

lemma ws_guide_ok_13: "guide_ok 361 ws_rows_13"
  by (simp add: ws_rows_13_def ws_guides guide_cell_def)

lemma ws_guide_ok_14: "guide_ok 391 ws_rows_14"
  by (simp add: ws_rows_14_def ws_guides guide_cell_def)

lemma ws_guide_ok_15: "guide_ok 421 ws_rows_15"
  by (simp add: ws_rows_15_def ws_guides guide_cell_def)

lemmas ws_guide_oks =
  ws_guide_ok_1 ws_guide_ok_2 ws_guide_ok_3 ws_guide_ok_4 ws_guide_ok_5 ws_guide_ok_6
  ws_guide_ok_7 ws_guide_ok_8 ws_guide_ok_9 ws_guide_ok_10 ws_guide_ok_11 ws_guide_ok_12
  ws_guide_ok_13 ws_guide_ok_14 ws_guide_ok_15

lemma ws_guide_ok: "guide_ok 1 ws_rows"
  unfolding ws_rows_def
  by ((rule guide_ok_append, rule ws_guide_oks, simp add: ws_row_lengths)+, rule ws_guide_ok_15)

lemma ws_guide_step:
  assumes "1 \<le> cs" and "cs \<le> 442" and "cs \<noteq> 442"
  obtains c t as where "t0_step ws_tables cs (schar c) = Some (t, as)" "t \<noteq> 0"
    "snd (ws_guide t) < snd (ws_guide cs)" "snd (ws_guide cs) \<le> 16"
proof -
  obtain c n where g: "ws_guide cs = (c, n)" by (cases "ws_guide cs")
  have i: "nat (cs - 1) < length ws_rows" "1 + int (nat (cs - 1)) = cs"
    using assms by (simp_all add: ws_rows_length)
  obtain t as where r: "row_lookup (ws_rows ! nat (cs - 1)) c = (t, as)" by (metis surj_pair)
  have ok: "- 128 \<le> c" "c \<le> 127" "n \<le> 16" "t \<noteq> 0" "snd (ws_guide t) < n"
    using guide_ok_nth [OF ws_guide_ok i(1)] assms(3) unfolding i(2) by (simp_all add: guide_cell_def g r)
  have "t0_step ws_tables cs (schar (of_schar c)) = Some (t, as)"
    using rows_from_step [OF ws_rows_from assms(1)] assms(2) r ok by (simp add: ws_rows_length)
  then show thesis by (rule that) (use ok g in simp_all)
qed

end
