(* ===== verification/Ws_Http_Example.thy ===== *)
theory Ws_Http_Example
  imports Ws_Http_Class
begin

text \<open>
  One request, run by the arrays of ext/websocket_http_parser/ws_http_parser.c: a GET with a
  Content-Length that starts with a zero.
\<close>

lemma rows_block_step:
  assumes "rows_from T n rows" and "int n \<le> cs" and "cs < int n + int (length rows)"
  shows "t0_step T cs c = Some (row_lookup (rows ! nat (cs - int n)) c)"
proof -
  have "nat (cs - int n) < length rows" "int (n + nat (cs - int n)) = cs" using assms by simp_all
  then have "row_at T cs (rows ! nat (cs - int n))" using assms(1) unfolding rows_from_def by metis
  then show ?thesis by (metis t0_step_row)
qed

lemma example_steps_1:
  "t0_step ws_tables 1 71 = Some (428, [0])"
  "t0_step ws_tables 3 47 = Some (4, [0])"
  "t0_step ws_tables 4 99 = Some (4, [])"
  "t0_step ws_tables 4 32 = Some (5, [12, 11])"
  "t0_step ws_tables 5 72 = Some (6, [0])"
  "t0_step ws_tables 6 84 = Some (7, [])"
  "t0_step ws_tables 7 84 = Some (8, [])"
  "t0_step ws_tables 8 80 = Some (9, [])"
  "t0_step ws_tables 9 47 = Some (10, [])"
  "t0_step ws_tables 10 49 = Some (11, [])"
  "t0_step ws_tables 11 46 = Some (12, [])"
  "t0_step ws_tables 12 49 = Some (13, [])"
  "t0_step ws_tables 13 13 = Some (14, [17])"
  "t0_step ws_tables 14 10 = Some (15, [])"
  "t0_step ws_tables 15 67 = Some (23, [5, 1])"
  "t0_step ws_tables 23 111 = Some (24, [])"
  "t0_step ws_tables 24 110 = Some (25, [])"
  "t0_step ws_tables 25 116 = Some (388, [])"
  "t0_step ws_tables 15 13 = Some (16, [5])"
  "t0_step ws_tables 16 10 = Some (442, [27])"
  "t0_step ws_tables 1 40 = Some (0, [])"
  by (simp_all add: rows_block_step [OF ws_block_1] ws_row_lengths ws_rows_1_def)

lemma example_steps_13:
  "t0_step ws_tables 388 101 = Some (389, [])"
  "t0_step ws_tables 389 110 = Some (390, [])"
  "t0_step ws_tables 390 116 = Some (391, [])"
  by (simp_all add: rows_block_step [OF ws_block_13] ws_row_lengths ws_rows_13_def)

lemma example_steps_14:
  "t0_step ws_tables 391 45 = Some (392, [])"
  "t0_step ws_tables 392 76 = Some (393, [])"
  "t0_step ws_tables 393 101 = Some (394, [])"
  "t0_step ws_tables 394 110 = Some (395, [])"
  "t0_step ws_tables 395 103 = Some (396, [])"
  "t0_step ws_tables 396 116 = Some (397, [])"
  "t0_step ws_tables 397 104 = Some (398, [])"
  "t0_step ws_tables 398 58 = Some (400, [2])"
  "t0_step ws_tables 400 32 = Some (400, [])"
  "t0_step ws_tables 400 48 = Some (404, [3, 0])"
  "t0_step ws_tables 404 49 = Some (405, [])"
  "t0_step ws_tables 405 48 = Some (406, [])"
  "t0_step ws_tables 406 13 = Some (14, [20, 4])"
  by (simp_all add: rows_block_step [OF ws_block_14] ws_row_lengths ws_rows_14_def)

lemma example_steps_15:
  "t0_step ws_tables 428 69 = Some (429, [])"
  "t0_step ws_tables 429 84 = Some (430, [])"
  "t0_step ws_tables 430 32 = Some (3, [6, 9, 10])"
  by (simp_all add: rows_block_step [OF ws_block_15] ws_row_lengths ws_rows_15_def)

lemmas example_steps = example_steps_1 example_steps_13 example_steps_14 example_steps_15

definition example_request :: string where
  "example_request =
     ''GET /c HTTP/1.1'' @ [CHR 0x0D, CHR 0x0A] @ ''Content-Length: 010'' @ [CHR 0x0D, CHR 0x0A, CHR 0x0D, CHR 0x0A]"

definition example_calls :: "ws_call list" where
  "example_calls =
     [Method ''GET'' 3 (Some method_GET), Request_path ''/c'' 2, Request_uri ''/c'' 2,
      Http_version ''HTTP/1.1'' 8, Content_length (''010'' @ [CHR 0x0D]) 3,
      Header ''Content-Length'' 14 ''010'' 3]"

lemma example_codes:
  "schar (CHR 0x0A) = 10"
  "schar (CHR 0x0D) = 13"
  "schar (CHR '' '') = 32"
  "schar (CHR ''('') = 40"
  "schar (CHR ''-'') = 45"
  "schar (CHR ''.'') = 46"
  "schar (CHR ''/'') = 47"
  "schar (CHR ''0'') = 48"
  "schar (CHR ''1'') = 49"
  "schar (CHR '':'') = 58"
  "schar (CHR ''C'') = 67"
  "schar (CHR ''E'') = 69"
  "schar (CHR ''G'') = 71"
  "schar (CHR ''H'') = 72"
  "schar (CHR ''L'') = 76"
  "schar (CHR ''P'') = 80"
  "schar (CHR ''T'') = 84"
  "schar (CHR ''c'') = 99"
  "schar (CHR ''e'') = 101"
  "schar (CHR ''g'') = 103"
  "schar (CHR ''h'') = 104"
  "schar (CHR ''n'') = 110"
  "schar (CHR ''o'') = 111"
  "schar (CHR ''t'') = 116"
  by (simp_all add: schar_def)

lemma example_feed:
  "\<exists>pr'. ws_feed log_calls [] [example_request] ((HttpRequestParser_init pr)\<lparr>w_data := d\<rparr>) [] =
     Some (pr', example_calls) \<and> w_cs pr' = 442"
  by (simp add: example_request_def example_calls_def NUL_def log_calls_def done_eqs
      HttpRequestParser_init_def ws_http_request_parser_init_def ws_http_request_parser_start_def
      ws_http_request_parser_execute_def ws_act_def ws_action_def LEN_def example_steps example_codes
      Let_def)

end
