(* ===== verification/Ws_Http_Properties.thy ===== *)
theory Ws_Http_Properties
  imports Ws_Http_Class Ws_Http_Guide Ws_Http_Example
begin

text \<open>
  What the WebSocket HTTP request parser promises: the bytes of a request may come in any pieces;
  every run ends with an answer, and never outside the buffer; the request object is what the
  parser's calls say, in their order; a finished request has its request line before its header
  fields; an error is shown at the character that is wrong; and a request in progress can always
  be completed.
\<close>

text \<open>An answer, apart from where the buffer of the last error was.\<close>

fun answer :: "ws_ending \<Rightarrow> ws_ending" where
  "answer (Returns r pr h) = Returns r (pr\<lparr>w_error_start := None, w_error_len := 0\<rparr>) h"
| "answer e = e"

text \<open>The memory of a parser before it is initialised.\<close>

definition example_parser :: ws_http_request_parser where
  "example_parser =
     \<lparr>w_cs = 7, w_nread = 7, w_error_start = None, w_error_len = 7, w_error_pos = 7, w_mark = 7,
      w_hdr_field_start = 7, w_hdr_field_len = 7, w_hdr_value_start = 7, w_hdr_value_len = 7,
      w_query_start = 7, w_fragment_start = 7, w_method = None, w_uri_scheme = None, w_data = None\<rparr>"

interpretation wsp: ws_parsing ws_certificate ws_ruby "Some v"
  by unfold_locales

lemma answer_ending: "ws_result (pr1, h1) = ws_result (pr2, h2) \<Longrightarrow>
    answer (ending_of pr1 h1) = answer (ending_of pr2 h2)"
proof -
  assume eq: "ws_result (pr1, h1) = ws_result (pr2, h2)"
  then have pr: "pr1\<lparr>w_error_start := None, w_error_len := 0\<rparr> = pr2\<lparr>w_error_start := None, w_error_len := 0\<rparr>"
    and h: "h1 = h2" by (simp_all add: ws_result_def)
  have "w_cs pr1 = w_cs pr2" "w_nread pr1 = w_nread pr2"
    using arg_cong [OF pr, of w_cs] arg_cong [OF pr, of w_nread] by simp_all
  then show ?thesis using pr h by (simp add: ending_of_def done_eqs)
qed

lemma answer_same:
  assumes "answer (ending_of pr1 h1) = answer (ending_of pr2 h2)"
  shows "w_cs pr1 = w_cs pr2 \<and> w_error_pos pr1 = w_error_pos pr2"
proof -
  have eq: "pr1\<lparr>w_error_start := None, w_error_len := 0\<rparr> = pr2\<lparr>w_error_start := None, w_error_len := 0\<rparr>"
    using assms by (simp add: ending_of_def)
  show ?thesis using arg_cong [OF eq, of w_cs] arg_cong [OF eq, of w_error_pos] by simp
qed

lemma execute_answer:
  "HttpRequestParser_execute p v b n h = Returns r p' h' \<Longrightarrow>
   r = Qfalse \<or> r = HttpRequestParser_nread p'"
  by (auto simp: HttpRequestParser_execute_def HttpRequestParser_nread_def Let_def
      split: if_splits ruby_value.splits option.splits)

lemma new_nread: "HttpRequestParser_nread (HttpRequestParser_init pr) = Fix 0"
  by (simp add: HttpRequestParser_nread_def HttpRequestParser_init_def ws_http_request_parser_init_def)

lemma parse_whole:
  "parse_pieces v [] [s] (HttpRequestParser_init pr) h =
     HttpRequestParser_execute (HttpRequestParser_init pr) v (Str s) (Fix 0) h"
  by (auto simp: new_nread split: ws_ending.split dest!: execute_answer)

lemma HttpRequestParser_in_pieces:
  assumes new: "rb_new (new_robj k (HashB [])) h0 = (h, v)"
    and cs: "cs \<noteq> []" "[] \<notin> set cs" and len: "length (concat cs) < 2 ^ 31"
  shows "answer (parse_pieces v [] cs (HttpRequestParser_init pr) h) =
    answer (HttpRequestParser_execute (HttpRequestParser_init pr) v (Str (concat cs)) (Fix 0) h)"
proof -
  let ?pr = "(HttpRequestParser_init pr)\<lparr>w_data := Some v\<rparr>"
  obtain pr1 h1 where one: "ws_feed ws_ruby [] cs ?pr h = Some (pr1, h1)"
      "parse_pieces v [] cs (HttpRequestParser_init pr) h = ending_of pr1 h1"
    by (rule new_pieces_run [OF new cs len]) (rule that)
  have whole: "[concat cs] \<noteq> []" "[] \<notin> set [concat cs]" "length (concat [concat cs]) < 2 ^ 31"
    using cs len by (cases cs; auto)+
  obtain pr2 h2 where two: "ws_feed ws_ruby [] [concat cs] ?pr h = Some (pr2, h2)"
      "parse_pieces v [] [concat cs] (HttpRequestParser_init pr) h = ending_of pr2 h2"
    by (rule new_pieces_run [OF new whole]) (rule that)
  have l: "length ([] @ concat cs @ NUL) < 2 ^ 63" "length ([] @ concat [concat cs] @ NUL) < 2 ^ 63"
    using len by (simp_all add: NUL_def)
  have d: "w_data ?pr = Some v" by simp
  have "map_option ws_result (ws_feed ws_ruby [] cs ?pr h) =
      map_option ws_result (ws_feed ws_ruby [] [concat cs] ?pr h)"
    unfolding wsp.feed_one_shot [OF new_parser_reading d cs l(1)]
      wsp.feed_one_shot [OF new_parser_reading d whole(1,2) l(2)] by simp
  then have "ws_result (pr1, h1) = ws_result (pr2, h2)" using one(1) two(1) by simp
  then show ?thesis using answer_ending one(2) two(2) parse_whole by metis
qed

text \<open>
  C5.  A request may come in any pieces: whether \<open>execute\<close> is called each time some bytes have
  come or once on all of them, the answer, the parser and the request are the same.
\<close>

theorem HttpRequestParser_pieces:
  assumes new: "rb_new (new_robj k (HashB [])) h0 = (h, v)"
    and cs: "cs \<noteq> []" "[] \<notin> set cs" and len: "length (concat cs) < 2 ^ 31"
  shows "answer (parse_pieces v [] cs (HttpRequestParser_init pr) h) =
    answer (HttpRequestParser_execute (HttpRequestParser_init pr) v (Str (concat cs)) (Fix 0) h)"
  by (rule HttpRequestParser_in_pieces [OF assms])

theorem HttpRequestParser_pieces_witness:
  "answer (parse_pieces (Ref 0) [] [''GE'', ''T /''] (HttpRequestParser_init example_parser)
       [new_robj ''HttpRequest'' (HashB [])]) =
   answer (HttpRequestParser_execute (HttpRequestParser_init example_parser) (Ref 0) (Str ''GET /'') (Fix 0)
       [new_robj ''HttpRequest'' (HashB [])])"
  using HttpRequestParser_pieces [of "''HttpRequest''" "[]" _ _ "[''GE'', ''T /'']" example_parser]
  by (simp add: rb_new_def)

text \<open>
  C6.  Every run ends with an answer, never with an exception, a failed assertion or an access
  outside the buffer: false and a parser in error, or the number of bytes read, which is all of
  them unless the request is finished.
\<close>

theorem HttpRequestParser_answers:
  assumes new: "rb_new (new_robj k (HashB [])) h0 = (h, v)"
    and cs: "cs \<noteq> []" "[] \<notin> set cs" and len: "length (concat cs) < 2 ^ 31"
  shows "\<exists>r pr' h'. parse_pieces v [] cs (HttpRequestParser_init pr) h = Returns r pr' h' \<and>
    (r = Qfalse \<and> HttpRequestParser_has_error pr' = Qtrue \<or>
     (\<exists>n. n \<le> length (concat cs) \<and> r = Fix (int n) \<and> HttpRequestParser_has_error pr' = Qfalse \<and>
        (n = length (concat cs) \<or> HttpRequestParser_is_finished pr' = Qtrue)))"
proof -
  obtain pr' h' L s where run: "parse_pieces v [] cs (HttpRequestParser_init pr) h = ending_of pr' h'"
      "prefix s (concat cs)" "after_run v s pr' h' L"
      "w_cs pr' \<noteq> 0 \<and> w_cs pr' \<noteq> 442 \<longrightarrow> s = concat cs"
    by (rule new_pieces_run [OF new cs len]) (rule that)
  have n: "w_nread pr' \<le> length (concat cs)"
    using run(2,3) prefix_length_le by (fastforce simp: after_run_def)
  have "w_nread pr' = length (concat cs)" if "w_cs pr' \<noteq> 0" "w_cs pr' \<noteq> 442"
    using run(3,4) that by (simp add: after_run_def ws.reading_def)
  then show ?thesis
    using n run(1) by (auto simp: ending_of_def done_eqs HttpRequestParser_has_error_def
        HttpRequestParser_is_finished_def)
qed

theorem HttpRequestParser_answers_witness:
  "\<exists>r pr' h'. parse_pieces (Ref 0) [] [''GE'', ''T (''] (HttpRequestParser_init example_parser)
     [new_robj ''HttpRequest'' (HashB [])] = Returns r pr' h'"
  using HttpRequestParser_answers [of "''HttpRequest''" "[]" _ _ "[''GE'', ''T ('']" example_parser]
  by (auto simp: rb_new_def)

text \<open>The example request is finished; a parenthesis at the start is an error.\<close>

definition example_heap :: heap where
  "example_heap = [new_robj ''HttpRequest'' (HashB [])]"

lemma example_new: "rb_new (new_robj ''HttpRequest'' (HashB [])) [] = (example_heap, Ref 0)"
  by (simp add: rb_new_def example_heap_def)

text \<open>
  C7.  The request is built by the parser's calls: what a reader of the Hash and its variables
  sees is the effect of the calls the parser makes, in their order, on an empty request, and every
  Array in it still has one owner.
\<close>

theorem HttpRequestParser_builds:
  assumes new: "rb_new (new_robj k (HashB [])) h0 = (h, v)"
    and cs: "cs \<noteq> []" "[] \<notin> set cs" and len: "length (concat cs) < 2 ^ 31"
  shows "\<exists>r pr' h' L. parse_pieces v [] cs (HttpRequestParser_init pr) h = Returns r pr' h' \<and>
    ws_feed log_calls [] cs ((HttpRequestParser_init pr)\<lparr>w_data := Some v\<rparr>) [] = Some (pr', L) \<and>
    own_arrays v h' \<and> view_of v h' = built_by L"
proof -
  obtain pr' h' L s where run: "parse_pieces v [] cs (HttpRequestParser_init pr) h = ending_of pr' h'"
      "ws_feed log_calls [] cs ((HttpRequestParser_init pr)\<lparr>w_data := Some v\<rparr>) [] = Some (pr', map view L)"
      "after_run v s pr' h' L"
    by (rule new_pieces_run [OF new cs len]) (rule that)
  then have "own_arrays v h'" "view_of v h' = built_by (map view L)"
    by (simp_all add: after_run_def built_by_view)
  then show ?thesis using run(1,2) unfolding ending_of_def by blast
qed

theorem HttpRequestParser_builds_witness:
  "\<exists>r pr' h'. parse_pieces (Ref 0) [] [example_request] (HttpRequestParser_init example_parser) example_heap = Returns r pr' h' \<and>
     view_of (Ref 0) h' = built_by example_calls"
proof -
  have req: "[example_request] \<noteq> []" "[] \<notin> set [example_request]" "length (concat [example_request]) < 2 ^ 31"
    by (simp_all add: example_request_def)
  from HttpRequestParser_builds [OF example_new req, of example_parser]
  show ?thesis using example_feed [where pr = example_parser and d = "Some (Ref 0)"] by auto
qed

lemma example_run:
  "\<exists>r pr' h'. parse_pieces (Ref 0) [] [example_request] (HttpRequestParser_init pr) example_heap = Returns r pr' h' \<and>
     HttpRequestParser_is_finished pr' = Qtrue \<and> view_of (Ref 0) h' = built_by example_calls"
proof -
  have req: "[example_request] \<noteq> []" "[] \<notin> set [example_request]" "length (concat [example_request]) < 2 ^ 31"
    by (simp_all add: example_request_def)
  obtain pr' h' L s where run:
      "ws_feed log_calls [] [example_request] ((HttpRequestParser_init pr)\<lparr>w_data := Some (Ref 0)\<rparr>) [] = Some (pr', map view L)"
      "parse_pieces (Ref 0) [] [example_request] (HttpRequestParser_init pr) example_heap = ending_of pr' h'"
      "after_run (Ref 0) s pr' h' L"
    by (rule new_pieces_run [OF example_new req]) (rule that)
  have "w_cs pr' = 442" "map view L = example_calls"
    using example_feed [where pr = pr and d = "Some (Ref 0)"] run(1) by auto
  then show ?thesis
    using run(2,3) built_by_view [of L]
    by (auto simp: after_run_def ending_of_def HttpRequestParser_is_finished_def done_eqs)
qed

text \<open>The shape of the calls of a whole request.\<close>

fun is_header_call :: "ws_call \<Rightarrow> bool" where
  "is_header_call (Method at n m) = False"
| "is_header_call (Request_path at n) = False"
| "is_header_call (Query at n) = False"
| "is_header_call (Fragment at n) = False"
| "is_header_call (Request_uri at n) = False"
| "is_header_call (Http_version at n) = False"
| "is_header_call c = True"

lemma log_phase_6: "log_phase L 6 = Some q \<Longrightarrow> q = 6 \<and> list_all is_header_call L"
proof (induction L)
  case (Cons c L)
  then show ?case by (cases c) auto
qed simp

lemma log_phase_5:
  "log_phase L 5 = Some 6 \<Longrightarrow> \<exists>at n hs. L = Http_version at n # hs \<and> list_all is_header_call hs"
proof (cases L)
  case (Cons c hs)
  then show "log_phase L 5 = Some 6 \<Longrightarrow> ?thesis" by (cases c) (auto dest: log_phase_6)
qed simp

definition uri_tail :: "ws_call list \<Rightarrow> bool" where
  "uri_tail L \<longleftrightarrow> (\<exists>u nu w nw hs. L = Request_uri u nu # Http_version w nw # hs \<and> list_all is_header_call hs)"

lemma log_phase_4: "log_phase L 4 = Some 6 \<Longrightarrow> uri_tail L"
proof (cases L)
  case (Cons c hs)
  then show "log_phase L 4 = Some 6 \<Longrightarrow> ?thesis"
    by (cases c) (auto simp: uri_tail_def dest: log_phase_5)
qed simp

definition fragment_tail :: "ws_call list \<Rightarrow> bool" where
  "fragment_tail L \<longleftrightarrow>
     (\<exists>fs rest. L = fs @ rest \<and> uri_tail rest \<and> (fs = [] \<or> (\<exists>at n. fs = [Fragment at n])))"

lemma fragment_tail_none: "uri_tail L \<Longrightarrow> fragment_tail L"
  unfolding fragment_tail_def by (intro exI [of _ "[]"] exI [of _ L]) simp

lemma fragment_tail_one: "uri_tail L \<Longrightarrow> fragment_tail (Fragment at n # L)"
  unfolding fragment_tail_def by (intro exI [of _ "[Fragment at n]"] exI [of _ L]) simp

lemma log_phase_3: "log_phase L 3 = Some 6 \<Longrightarrow> fragment_tail L"
proof (cases L)
  case (Cons c hs)
  assume p: "log_phase L 3 = Some 6"
  then have "log_phase L 4 = Some 6 \<or> (\<exists>at n. c = Fragment at n \<and> log_phase hs 4 = Some 6)"
    using Cons by (cases c) auto
  then show ?thesis using Cons log_phase_4 fragment_tail_none fragment_tail_one by blast
qed simp

lemma log_phase_2:
  "log_phase L 2 = Some 6 \<Longrightarrow> fragment_tail L \<or> (\<exists>at n L'. L = Query at n # L' \<and> fragment_tail L')"
proof (cases L)
  case (Cons c hs)
  assume p: "log_phase L 2 = Some 6"
  then have "log_phase L 3 = Some 6 \<or> (\<exists>at n. c = Query at n \<and> log_phase hs 3 = Some 6)"
    using Cons by (cases c) auto
  then show ?thesis using Cons log_phase_3 by blast
qed simp

lemma log_phase_whole:
  assumes "log_phase L 0 = Some 6"
  obtains m nm me p np qs fs u nu w nw hs where
    "L = [Method m nm me, Request_path p np] @ qs @ fs @ [Request_uri u nu, Http_version w nw] @ hs"
    "qs = [] \<or> (\<exists>q n. qs = [Query q n])" "fs = [] \<or> (\<exists>f n. fs = [Fragment f n])"
    "list_all is_header_call hs"
proof -
  have "\<exists>m nm me L1. L = Method m nm me # L1 \<and> log_phase L1 1 = Some 6"
  proof (cases L)
    case (Cons c L1)
    then show ?thesis using assms by (cases c) auto
  qed (use assms in simp)
  then obtain m nm me L1 where L1: "L = Method m nm me # L1" "log_phase L1 1 = Some 6" by blast
  have "\<exists>p np L2. L1 = Request_path p np # L2 \<and> log_phase L2 2 = Some 6"
  proof (cases L1)
    case (Cons c L2)
    then show ?thesis using L1(2) by (cases c) auto
  qed (use L1 in simp)
  then obtain p np L2 where L2: "L1 = Request_path p np # L2" "log_phase L2 2 = Some 6" by blast
  obtain qs L3 where L3: "L2 = qs @ L3" "qs = [] \<or> (\<exists>q n. qs = [Query q n])" "fragment_tail L3"
    using log_phase_2 [OF L2(2)] by (metis append_Cons append_Nil)
  obtain fs L4 where L4: "L3 = fs @ L4" "fs = [] \<or> (\<exists>f n. fs = [Fragment f n])" "uri_tail L4"
    using L3(3) unfolding fragment_tail_def by blast
  obtain u nu w nw hs where "L4 = Request_uri u nu # Http_version w nw # hs" "list_all is_header_call hs"
    using L4(3) unfolding uri_tail_def by blast
  then show thesis using that [of m nm me p np qs fs u nu w nw hs] L1 L2 L3 L4 by simp
qed

lemma header_call_keeps:
  "is_header_call c \<Longrightarrow> x \<in> {''@http_method'', ''@uri'', ''@uri_path'', ''@uri_query'', ''@uri_fragment'', ''@http_version''} \<Longrightarrow>
   rq_attr (ws_spec c rq) x = rq_attr rq x"
  by (cases c) (auto simp: add_field_def set_attr_def push_attr_def)

lemma header_calls_keep:
  "list_all is_header_call hs \<Longrightarrow>
   x \<in> {''@http_method'', ''@uri'', ''@uri_path'', ''@uri_query'', ''@uri_fragment'', ''@http_version''} \<Longrightarrow>
   rq_attr (fold ws_spec hs rq) x = rq_attr rq x"
proof (induction hs arbitrary: rq)
  case (Cons c hs)
  then have "rq_attr (fold ws_spec hs (ws_spec c rq)) x = rq_attr (ws_spec c rq) x" by simp
  then show ?case using Cons.prems header_call_keeps [of c x rq] by simp
qed simp

text \<open>
  C8.  A finished request has all of its request line, and has it once and first: the calls that
  built it are the method, the path, a query or none, a fragment or none, the URI and the version,
  and after these the calls of the header fields only, which leave the request line alone.
\<close>

theorem HttpRequestParser_finished:
  assumes new: "rb_new (new_robj k (HashB [])) h0 = (h, v)"
    and cs: "cs \<noteq> []" "[] \<notin> set cs" and len: "length (concat cs) < 2 ^ 31"
    and run: "parse_pieces v [] cs (HttpRequestParser_init pr) h = Returns r pr' h'"
    and fin: "HttpRequestParser_is_finished pr' = Qtrue"
  shows "\<exists>m nm me p np qs fs u nu w nw hs.
    view_of v h' =
      built_by ([Method m nm me, Request_path p np] @ qs @ fs @ [Request_uri u nu, Http_version w nw] @ hs) \<and>
    (qs = [] \<or> (\<exists>q n. qs = [Query q n])) \<and> (fs = [] \<or> (\<exists>f n. fs = [Fragment f n])) \<and>
    list_all is_header_call hs \<and>
    attribute v h' ''@uri_path'' = str (take np p) \<and> attribute v h' ''@uri'' = str (take nu u) \<and>
    attribute v h' ''@http_version'' = str (take nw w)"
proof -
  obtain pr1 h1 L s where e: "parse_pieces v [] cs (HttpRequestParser_init pr) h = ending_of pr1 h1"
      and aft: "after_run v s pr1 h1 L"
    by (rule new_pieces_run [OF new cs len]) (rule that)
  have same: "pr1 = pr'" "h1 = h'" using e run by (simp_all add: ending_of_def)
  have "w_cs pr' = 442" using fin by (simp add: HttpRequestParser_is_finished_def done_eqs split: if_splits)
  then have L: "log_phase L 0 = Some 6" and vw: "view_of v h' = built_by L"
    using aft by (simp_all add: after_run_def same)
  obtain m nm me p np qs fs u nu w nw hs where
      sh: "L = [Method m nm me, Request_path p np] @ qs @ fs @ [Request_uri u nu, Http_version w nw] @ hs"
      "qs = [] \<or> (\<exists>q n. qs = [Query q n])" "fs = [] \<or> (\<exists>f n. fs = [Fragment f n])"
      "list_all is_header_call hs"
    by (rule log_phase_whole [OF L]) (rule that)
  have attr: "attribute v h' = rq_attr (built_by L)" using arg_cong [OF vw, of rq_attr] by (simp add: view_of_def)
  have "rq_attr (built_by L) ''@uri_path'' = str (take np p)" "rq_attr (built_by L) ''@uri'' = str (take nu u)"
      "rq_attr (built_by L) ''@http_version'' = str (take nw w)"
    unfolding sh(1) built_by_def using sh(2,3)
    by (auto simp: header_calls_keep [OF sh(4)] set_attr_def)
  then show ?thesis using sh vw unfolding attr by blast
qed

theorem HttpRequestParser_finished_witness:
  "\<exists>r pr' h' p np. parse_pieces (Ref 0) [] [example_request] (HttpRequestParser_init example_parser) example_heap = Returns r pr' h' \<and>
     HttpRequestParser_is_finished pr' = Qtrue \<and> attribute (Ref 0) h' ''@uri_path'' = str (take np p)"
proof -
  have req: "[example_request] \<noteq> []" "[] \<notin> set [example_request]" "length (concat [example_request]) < 2 ^ 31"
    by (simp_all add: example_request_def)
  obtain r pr' h' where run:
      "parse_pieces (Ref 0) [] [example_request] (HttpRequestParser_init example_parser) example_heap = Returns r pr' h'"
      "HttpRequestParser_is_finished pr' = Qtrue"
    using example_run by blast
  from HttpRequestParser_finished [OF example_new req run] run show ?thesis by blast
qed

text \<open>
  C9.  An error is shown where it is: the text of \<open>error\<close> is what has been received with the
  character that cannot be braced, and what is in front of that character alone is no error.
\<close>

theorem HttpRequestParser_error_at:
  assumes new: "rb_new (new_robj k (HashB [])) h0 = (h, v)"
    and cs: "cs \<noteq> []" "[] \<notin> set cs" and len: "length (concat cs) < 2 ^ 31"
    and run: "parse_pieces v [] cs (HttpRequestParser_init pr) h = Returns Qfalse pr' h'"
  shows "\<exists>w c rest. prefix (w @ c # rest) (concat cs) \<and>
    HttpRequestParser_error pr' = Some (Str (shown_error (w @ c # rest) (length w))) \<and>
    (w = [] \<or> (\<exists>pr2 h2. parse_pieces v [] [w] (HttpRequestParser_init pr) h =
        Returns (Fix (int (length w))) pr2 h2))"
proof -
  obtain pr1 h1 L s where e: "parse_pieces v [] cs (HttpRequestParser_init pr) h = ending_of pr1 h1"
      and pre: "prefix s (concat cs)" and aft: "after_run v s pr1 h1 L"
    by (rule new_pieces_run [OF new cs len]) (rule that)
  have same: "pr1 = pr'" "h1 = h'" and cs0: "w_cs pr' = 0"
    using e run by (auto simp: ending_of_def done_eqs split: if_splits)
  obtain w c rest where s: "s = w @ c # rest" and pos: "w_error_pos pr' = int (length w)"
    and shown: "HttpRequestParser_error pr' = Some (Str (shown_error s (length w)))"
    using aft cs0 by (auto simp: after_run_def same)
  have "\<exists>pr2 h2. parse_pieces v [] [w] (HttpRequestParser_init pr) h = Returns (Fix (int (length w))) pr2 h2"
    if w: "w \<noteq> []"
  proof -
    obtain rest' where whole: "concat cs = w @ c # rest'" using pre s by (auto simp: prefix_def)
    have two: "[w, c # rest'] \<noteq> []" "[] \<notin> set [w, c # rest']" "length (concat [w, c # rest']) < 2 ^ 31"
      "[w] \<noteq> []" "[] \<notin> set [w]" "length (concat [w]) < 2 ^ 31"
      using w len whole by simp_all
    obtain pr2 h2 L2 s2 where e2: "parse_pieces v [] [w] (HttpRequestParser_init pr) h = ending_of pr2 h2"
        and pre2: "prefix s2 (concat [w])" and aft2: "after_run v s2 pr2 h2 L2"
        and all2: "w_cs pr2 \<noteq> 0 \<and> w_cs pr2 \<noteq> 442 \<longrightarrow> s2 = concat [w]"
      by (rule new_pieces_run [OF new two(4-6)]) (rule that)
    have "answer (parse_pieces v [] [w, c # rest'] (HttpRequestParser_init pr) h) =
        answer (ending_of pr' h')"
      using HttpRequestParser_in_pieces [OF new two(1-3), of pr] HttpRequestParser_in_pieces [OF new cs len, of pr]
        e same whole by simp
    moreover have "parse_pieces v [] [w, c # rest'] (HttpRequestParser_init pr) h = ending_of pr2 h2"
      if "w_cs pr2 = 0 \<or> w_cs pr2 = 442"
      using e2 that by (auto simp: ending_of_def done_eqs HttpRequestParser_is_finished_def new_nread
          split: ws_ending.splits if_splits dest!: execute_answer)
    ultimately have "answer (ending_of pr2 h2) = answer (ending_of pr' h')" if "w_cs pr2 = 0 \<or> w_cs pr2 = 442"
      using that by simp
    then have "w_cs pr2 = w_cs pr' \<and> w_error_pos pr2 = w_error_pos pr'" if "w_cs pr2 = 0 \<or> w_cs pr2 = 442"
      using that answer_same by blast
    moreover have "w_error_pos pr2 < int (length w)" if "w_cs pr2 = 0"
      using aft2 pre2 that by (auto simp: after_run_def dest!: prefix_length_le)
    ultimately have "w_cs pr2 \<noteq> 0" "w_cs pr2 \<noteq> 442" using cs0 pos by auto
    then have "w_nread pr2 = length w" using aft2 all2 by (simp add: after_run_def ws.reading_def)
    then show ?thesis using e2 \<open>w_cs pr2 \<noteq> 0\<close> by (auto simp: ending_of_def done_eqs)
  qed
  then show ?thesis using pre s shown by blast
qed

theorem HttpRequestParser_error_at_witness:
  "\<exists>pr' h' w c rest. parse_pieces (Ref 0) [] [''('', ''x''] (HttpRequestParser_init example_parser) example_heap = Returns Qfalse pr' h' \<and>
     prefix (w @ c # rest) ''(x'' \<and>
     HttpRequestParser_error pr' = Some (Str (shown_error (w @ c # rest) (length w)))"
proof -
  have cs: "[''('', ''x''] \<noteq> []" "[] \<notin> set [''('', ''x'']" "length (concat [''('', ''x'']) < 2 ^ 31"
    by simp_all
  have "\<exists>pr' h'. parse_pieces (Ref 0) [] [''('', ''x''] (HttpRequestParser_init example_parser) example_heap = Returns Qfalse pr' h'"
    by (simp add: example_heap_def HttpRequestParser_execute_def hash_of_def deref_def new_robj_def
        NUL_def done_eqs HttpRequestParser_nread_def
        HttpRequestParser_init_def ws_http_request_parser_init_def ws_http_request_parser_start_def
        ws_http_request_parser_execute_def example_steps example_codes Let_def)
  then obtain pr' h' where run:
      "parse_pieces (Ref 0) [] [''('', ''x''] (HttpRequestParser_init example_parser) example_heap = Returns Qfalse pr' h'"
    by blast
  from HttpRequestParser_error_at [OF example_new cs run] run show ?thesis by auto
qed

text \<open>From every state there is a way to the end of a request.\<close>

lemma reading_completable:
  assumes "ws.reading seen pr L" and "own_arrays v h" and "w_data pr = Some v"
    and "view_of v h = built_by L" and "list_all (call_ok 1) L"
    and "length seen + snd (ws_guide (w_cs pr)) < 2 ^ 31"
  shows "\<exists>ds pr' h'. ds \<noteq> [] \<and> [] \<notin> set ds \<and> length (concat ds) \<le> snd (ws_guide (w_cs pr)) \<and>
    parse_pieces v seen ds pr h = ending_of pr' h' \<and> w_cs pr' = 442"
  using assms
proof (induction "snd (ws_guide (w_cs pr))" arbitrary: seen pr L h rule: less_induct)
  case less
  have cs: "1 \<le> w_cs pr" "w_cs pr \<le> 442" "w_cs pr \<noteq> 442" and n: "w_nread pr = length seen"
    using less.prems(1) by (auto simp: ws.reading_def ws.at_char_def)
  obtain c t as where st: "t0_step ws_tables (w_cs pr) (schar c) = Some (t, as)" "t \<noteq> 0"
      "snd (ws_guide t) < snd (ws_guide (w_cs pr))"
    using ws_guide_step [OF cs] by metis
  have len: "length (seen @ [c]) < 2 ^ 31" using less.prems(6) st(3) by simp
  obtain pr1 h1 log where
      ex: "ws_http_request_parser_execute ws_ruby pr h ((seen @ [c]) @ NUL) (length (seen @ [c])) (w_nread pr) =
        Some (pr1, h1)"
    and aft: "after_run v (seen @ [c]) pr1 h1 (L @ log)"
    and tr: "\<exists>q pr2. ws_trace (seen @ [c] @ NUL) (w_cs pr) (length seen) [c] pr = Some (w_cs pr1, q, pr2, log)"
    by (rule run_after [OF less.prems(1-5) _ len]) (simp, rule that)
  have t: "w_cs pr1 = t"
    using tr st cs by (auto split: prod.splits if_splits)
  have "pr\<lparr>w_data := Some v\<rparr> = pr" using less.prems(3) by simp
  then have cls: "HttpRequestParser_execute pr v (Str (seen @ [c])) (HttpRequestParser_nread pr) h = ending_of pr1 h1"
    using execute_class [OF less.prems(2) _ len, of pr] n ex by simp
  show ?case
  proof (cases "t = 442")
    case True
    then have "parse_pieces v seen [[c]] pr h = ending_of pr1 h1"
      using cls t by (simp add: ending_of_def done_eqs HttpRequestParser_is_finished_def)
    then show ?thesis using True t st(3)
      by (intro exI [of _ "[[c]]"] exI [of _ pr1] exI [of _ h1]) simp
  next
    case False
    then have a: "ws.reading (seen @ [c]) pr1 (L @ log)" "own_arrays v h1" "w_data pr1 = Some v"
        "view_of v h1 = built_by (L @ log)" "list_all (call_ok 1) (L @ log)"
      using aft t st(2) by (auto simp: after_run_def)
    have l: "length (seen @ [c]) + snd (ws_guide (w_cs pr1)) < 2 ^ 31"
      using less.prems(6) st(3) t by simp
    obtain ds pr' h' where ds: "[] \<notin> set ds" "length (concat ds) \<le> snd (ws_guide t)"
        "parse_pieces v (seen @ [c]) ds pr1 h1 = ending_of pr' h'" "w_cs pr' = 442"
      using less.hyps [OF _ a l] st(3) unfolding t by blast
    have "parse_pieces v seen ([c] # ds) pr h = ending_of pr' h'"
      using cls ds(3) t st(2) False
      by (simp add: ending_of_def done_eqs HttpRequestParser_is_finished_def)
    then show ?thesis using ds st(3)
      by (intro exI [of _ "[c] # ds"] exI [of _ pr'] exI [of _ h']) simp
  qed
qed

lemma parse_pieces_append:
  assumes "parse_pieces v seen cs pr h = ending_of pr1 h1" and "w_cs pr1 \<noteq> 0" "w_cs pr1 \<noteq> 442"
  shows "parse_pieces v seen (cs @ ds) pr h = parse_pieces v (seen @ concat cs) ds pr1 h1"
  using assms
proof (induction cs arbitrary: seen pr h)
  case Nil
  then show ?case by (simp add: ending_of_def)
next
  case (Cons c cs)
  show ?case
  proof (cases "HttpRequestParser_execute pr v (Str (seen @ c)) (HttpRequestParser_nread pr) h")
    case (Returns r pr2 h2)
    then have "\<not> (r = Qfalse \<or> HttpRequestParser_is_finished pr2 = Qtrue)"
      using Cons.prems by (auto simp: ending_of_def done_eqs HttpRequestParser_is_finished_def)
    then show ?thesis using Returns Cons by simp
  qed (use Cons.prems in \<open>simp_all add: ending_of_def\<close>)
qed

text \<open>
  C10.  A request in progress can always be completed: after any bytes that are neither an error
  nor a whole request, sixteen more are enough for a finished one.
\<close>

theorem HttpRequestParser_completable:
  assumes new: "rb_new (new_robj k (HashB [])) h0 = (h, v)"
    and cs: "cs \<noteq> []" "[] \<notin> set cs" and len: "length (concat cs) + 16 < 2 ^ 31"
    and run: "parse_pieces v [] cs (HttpRequestParser_init pr) h = Returns r pr1 h1"
    and go: "HttpRequestParser_has_error pr1 = Qfalse" "HttpRequestParser_is_finished pr1 = Qfalse"
  shows "\<exists>ds r' pr' h'. length (concat ds) \<le> 16 \<and>
    parse_pieces v [] (cs @ ds) (HttpRequestParser_init pr) h = Returns r' pr' h' \<and>
    HttpRequestParser_is_finished pr' = Qtrue"
proof -
  have len': "length (concat cs) < 2 ^ 31" using len by simp
  obtain pr2 h2 L s where e: "parse_pieces v [] cs (HttpRequestParser_init pr) h = ending_of pr2 h2"
      and aft: "after_run v s pr2 h2 L"
      and all: "w_cs pr2 \<noteq> 0 \<and> w_cs pr2 \<noteq> 442 \<longrightarrow> s = concat cs"
    by (rule new_pieces_run [OF new cs len']) (rule that)
  have same: "pr2 = pr1" "h2 = h1" using e run by (simp_all add: ending_of_def)
  have st: "w_cs pr1 \<noteq> 0" "w_cs pr1 \<noteq> 442"
    using go by (simp_all add: HttpRequestParser_has_error_def HttpRequestParser_is_finished_def done_eqs split: if_splits)
  then have a: "ws.reading (concat cs) pr1 L" "own_arrays v h1" "w_data pr1 = Some v"
      "view_of v h1 = built_by L" "list_all (call_ok 1) L"
    using aft all by (auto simp: after_run_def same)
  have rg: "1 \<le> w_cs pr1" "w_cs pr1 \<le> 442" using a(1) by (simp_all add: ws.reading_def ws.at_char_def)
  have n: "snd (ws_guide (w_cs pr1)) \<le> 16" using ws_guide_step [OF rg st(2)] by blast
  have l: "length (concat cs) + snd (ws_guide (w_cs pr1)) < 2 ^ 31" using n len by simp
  obtain ds pr' h' where ds: "length (concat ds) \<le> snd (ws_guide (w_cs pr1))"
      "parse_pieces v (concat cs) ds pr1 h1 = ending_of pr' h'" "w_cs pr' = 442"
    using reading_completable [OF a l] by blast
  have "parse_pieces v [] (cs @ ds) (HttpRequestParser_init pr) h = ending_of pr' h'"
    using parse_pieces_append [OF e [unfolded same] st] ds(2) by simp
  then show ?thesis
    using ds n unfolding ending_of_def
    by (intro exI [of _ ds]) (auto simp: HttpRequestParser_is_finished_def done_eqs)
qed

theorem HttpRequestParser_completable_witness:
  "\<exists>ds r' pr' h'. length (concat ds) \<le> 16 \<and>
    parse_pieces (Ref 0) [] ([''G''] @ ds) (HttpRequestParser_init example_parser) example_heap = Returns r' pr' h' \<and>
    HttpRequestParser_is_finished pr' = Qtrue"
proof -
  have cs: "[''G''] \<noteq> []" "[] \<notin> set [''G'']" "length (concat [''G'']) + 16 < 2 ^ 31" by simp_all
  have "\<exists>r pr' h'. parse_pieces (Ref 0) [] [''G''] (HttpRequestParser_init example_parser) example_heap = Returns r pr' h' \<and>
      HttpRequestParser_has_error pr' = Qfalse \<and> HttpRequestParser_is_finished pr' = Qfalse"
    by (simp add: example_heap_def HttpRequestParser_execute_def hash_of_def deref_def new_robj_def
        NUL_def done_eqs HttpRequestParser_nread_def HttpRequestParser_has_error_def
        HttpRequestParser_is_finished_def HttpRequestParser_init_def
        ws_http_request_parser_init_def ws_http_request_parser_start_def
        ws_http_request_parser_execute_def ws_act_def ws_action_def example_steps example_codes Let_def)
  then show ?thesis using HttpRequestParser_completable [OF example_new cs] by blast
qed

text \<open>
  C36.  \<open>Content-Length\<close> is read by \<open>strtol\<close> with base 0: the digits are a decimal number when the
  first one is no zero, and octal digits up to the first that is none when it is.
\<close>

theorem req_content_length_value:
  assumes own: "own_arrays v h" and w: "list_all is_digit w" "w \<noteq> []" "length w \<le> 9" and c: "ends_number c"
  shows "\<exists>h'. req_content_length v (w @ c # rest) (length w) h = Some h' \<and>
    attribute v h' ''@content_length'' = Single (Fix (number_value w)) \<and>
    (hd w \<noteq> CHR ''0'' \<longrightarrow> number_value w = int (dec_val w))"
proof -
  have ok: "call_ok 1 (Content_length (w @ c # rest) (length w))"
    using w c by (cases w) (simp_all add: digits_ok_def)
  obtain h' where h': "ws_dispatch v (Content_length (w @ c # rest) (length w)) h = Some h'"
      "view_of v h' = ws_spec (Content_length (w @ c # rest) (length w)) (view_of v h)"
    using ws_dispatch_spec [OF own ok] by blast
  have "attribute v h' ''@content_length'' = Single (Fix (number_value w))"
    using arg_cong [OF h'(2), of rq_attr] by (simp add: view_of_def set_attr_def)
  then show ?thesis using h'(1) number_value_decimal [OF w(1)] by simp
qed

theorem req_content_length_value_witness:
  "\<exists>h'. req_content_length (Ref 0) (''010'' @ CHR 0x0D # ''x'') (length ''010'') example_heap = Some h' \<and>
    attribute (Ref 0) h' ''@content_length'' = Single (Fix 8)"
proof -
  have own: "own_arrays (Ref 0) example_heap" by (rule new_request [OF example_new])
  have "list_all is_digit ''010''" "''010'' \<noteq> []" "length ''010'' \<le> 9" "ends_number (CHR 0x0D)"
    by (simp_all add: is_digit_def ends_number_def schar_def)
  from req_content_length_value [OF own this, of "''x''"] show ?thesis
    by (simp add: number_value_def number_base_def c_digit_def schar_def)
qed

text \<open>
  C35.  A whole request with the header field \<open>Content-Length: 010\<close>, whose value is ten in HTTP, is
  accepted with the content length 8.
\<close>

theorem HttpRequestParser_octal_length:
  "\<exists>r pr' h'. parse_pieces (Ref 0) [] [example_request] (HttpRequestParser_init pr) example_heap = Returns r pr' h' \<and>
     HttpRequestParser_is_finished pr' = Qtrue \<and>
     field_list (Ref 0) h' = [(Str ''Content-Length'', [Str ''010''])] \<and>
     attribute (Ref 0) h' ''@content_length'' = Single (Fix 8)"
proof -
  obtain r pr' h' where run:
      "parse_pieces (Ref 0) [] [example_request] (HttpRequestParser_init pr) example_heap = Returns r pr' h'"
      "HttpRequestParser_is_finished pr' = Qtrue" "view_of (Ref 0) h' = built_by example_calls"
    using example_run by blast
  have "number_value ''010'' = 8"
    by (simp add: number_value_def number_base_def c_digit_def schar_def)
  moreover have "capitalized True ''Content-Length'' = ''Content-Length''" by code_simp
  ultimately have "rq_fields (built_by example_calls) = [(Str ''Content-Length'', [Str ''010''])]"
      "rq_attr (built_by example_calls) ''@content_length'' = Single (Fix 8)"
    by (simp_all add: built_by_def example_calls_def empty_view_def set_attr_def add_field_def)
  moreover have "field_list (Ref 0) h' = rq_fields (built_by example_calls)"
      "attribute (Ref 0) h' = rq_attr (built_by example_calls)"
    unfolding run(3) [symmetric] by (simp_all add: view_of_def)
  ultimately show ?thesis using run(1,2) by (auto simp del: parse_pieces.simps)
qed

end
