(* ===== verification/Sip_Message.thy ===== *)
theory Sip_Message
  imports Ruby_Request Header_Names Ruby_C_Util Ip_Utils Parser_Buffer
begin

text \<open>
  ext/sip_parser/sip_parser.h and the first half of ext/sip_parser/sip_parser_ruby.c: the
  functions the SIP parsers call, which build the message in the store: a \<open>Request\<close> or
  \<open>Response\<close> with a Hash of its header fields, \<open>Uri\<close> and \<open>NameAddr\<close> objects and the values taken
  from single fields.  A value of 0 of an \<open>enum\<close> that has no such constant is \<open>None\<close>.
\<close>

subsection \<open>The enumerations of sip_parser.h\<close>

datatype sip_data_type = sip_request | sip_response | outbound_keepalive

datatype (plugins only: code size) sip_method =
    method_INVITE | method_ACK | method_CANCEL | method_PRACK | method_BYE | method_REFER
  | method_INFO | method_UPDATE | method_OPTIONS | method_REGISTER | method_MESSAGE
  | method_SUBSCRIBE | method_NOTIFY | method_PUBLISH | method_PULL | method_PUSH | method_STORE
  | method_unknown

datatype sip_component =
    component_ruri | component_from | component_to | component_route | component_route_uri
  | component_contact

datatype uri_owner =
    uri_owner_ruri | uri_owner_from | uri_owner_to | uri_owner_route | uri_owner_contact

datatype sip_uri_scheme =
    uri_scheme_sip | uri_scheme_sips | uri_scheme_tel | uri_scheme_unknown

datatype uri_param_name =
    uri_param_transport | uri_param_lr | uri_param_ob | uri_param_ovid | uri_tel_phone_context

datatype host_type = host_type_domain | host_type_ipv4 | host_type_ipv6

datatype (plugins only: code size) header_field =
    header_field_any | header_field_via | header_field_from | header_field_to
  | header_field_route | header_field_supported | header_field_require
  | header_field_proxy_require | header_field_contact

datatype sip_transport =
    transport_udp | transport_tcp | transport_tls | transport_sctp | transport_ws
  | transport_wss | transport_unknown

subsection \<open>Objects\<close>

definition new_message :: "string \<Rightarrow> heap \<Rightarrow> (heap \<times> rval) option" where
  "new_message c h =
     (case rb_obj_alloc c h of (h, parsed) \<Rightarrow>
       (case rb_hash_new h of (h, headers) \<Rightarrow> do {
          h \<leftarrow> rb_ivar_set parsed ''@headers'' headers h;
          Some (h, parsed)
        }))"

text \<open>\<open>self\<close> is the Ruby parser, the result the new \<open>parsed\<close>.\<close>

definition data_type :: "rval \<Rightarrow> sip_data_type \<Rightarrow> heap \<Rightarrow> (heap \<times> rval) option" where
  "data_type self t h = do {
     (h, parsed) \<leftarrow>
       (case t of
          sip_request \<Rightarrow> new_message ''OverSIP::SIP::Request'' h
        | sip_response \<Rightarrow> new_message ''OverSIP::SIP::Response'' h
        | outbound_keepalive \<Rightarrow> Some (h, Imm (Sym ''outbound_keepalive'')));
     h \<leftarrow> rb_ivar_set self ''@parsed'' parsed h;
     Some (h, parsed)
   }"

abbreviation cUri :: string where "cUri \<equiv> ''OverSIP::SIP::Uri''"
abbreviation cNameAddr :: string where "cNameAddr \<equiv> ''OverSIP::SIP::NameAddr''"

definition init_component :: "rval \<Rightarrow> sip_component \<Rightarrow> heap \<Rightarrow> heap option" where
  "init_component parsed msg_component h =
     (case msg_component of
        component_ruri \<Rightarrow> (case rb_obj_alloc cUri h of (h, v) \<Rightarrow> rb_ivar_set parsed ''@ruri'' v h)
      | component_from \<Rightarrow> (case rb_obj_alloc cNameAddr h of (h, v) \<Rightarrow> rb_ivar_set parsed ''@from'' v h)
      | component_to \<Rightarrow> (case rb_obj_alloc cNameAddr h of (h, v) \<Rightarrow> rb_ivar_set parsed ''@to'' v h)
      | component_route \<Rightarrow> (case rb_ary_new [] h of (h, v) \<Rightarrow> rb_ivar_set parsed ''@routes'' v h)
      | component_route_uri \<Rightarrow> do {
          routes \<leftarrow> rb_ivar_get parsed ''@routes'' h;
          (case rb_obj_alloc cNameAddr h of (h, v) \<Rightarrow> rb_ary_push routes v h)
        }
      | component_contact \<Rightarrow> (case rb_obj_alloc cNameAddr h of (h, v) \<Rightarrow> rb_ivar_set parsed ''@contact'' v h))"

text \<open>
  \<open>header\<close>: the first value of a Via or Route field also gives the message the very Array its
  values are in, the first value of a From or To field the value.
\<close>

definition sip_header ::
  "rval \<Rightarrow> string \<Rightarrow> nat \<Rightarrow> string \<Rightarrow> nat \<Rightarrow> header_field \<Rightarrow> heap \<Rightarrow> heap option" where
  "sip_header parsed hdr_field hdr_field_len hdr_value hdr_value_len hdr_field_name h = do {
     name \<leftarrow> chars hdr_field hdr_field_len;
     let f = headerize name;
     w \<leftarrow> chars hdr_value hdr_value_len;
     let v = Imm (Str w);
     headers \<leftarrow> rb_ivar_get parsed ''@headers'' h;
     el \<leftarrow> rb_hash_lookup headers f h;
     (if is_T_ARRAY el h then rb_ary_push el v h
      else
        (case rb_ary_new [v] h of (h, array) \<Rightarrow> do {
           h \<leftarrow> rb_hash_aset headers f array h;
           (case hdr_field_name of
              header_field_via \<Rightarrow> rb_ivar_set parsed ''@hdr_via'' array h
            | header_field_from \<Rightarrow> rb_ivar_set parsed ''@hdr_from'' v h
            | header_field_to \<Rightarrow> rb_ivar_set parsed ''@hdr_to'' v h
            | header_field_route \<Rightarrow> rb_ivar_set parsed ''@hdr_route'' array h
            | _ \<Rightarrow> Some h)
         }))
   }"

subsection \<open>Values of the message\<close>

text \<open>A String of \<open>length\<close> characters, kept in a variable.\<close>

definition set_chars :: "string \<Rightarrow> rval \<Rightarrow> string \<Rightarrow> nat \<Rightarrow> heap \<Rightarrow> heap option" where
  "set_chars x parsed at n h = do { v \<leftarrow> chars at n; rb_ivar_set parsed x (Imm (Str v)) h }"

text \<open>The decimal number of that many characters.\<close>

definition set_int :: "string \<Rightarrow> rval \<Rightarrow> string \<Rightarrow> nat \<Rightarrow> heap \<Rightarrow> heap option" where
  "set_int x parsed at n h = do {
     w \<leftarrow> chars at n; i \<leftarrow> str_to_int w; rb_ivar_set parsed x (Imm (Fix i)) h }"

primrec method_symbol :: "sip_method \<Rightarrow> string option" where
  "method_symbol method_INVITE = Some ''INVITE''"
| "method_symbol method_ACK = Some ''ACK''"
| "method_symbol method_CANCEL = Some ''CANCEL''"
| "method_symbol method_PRACK = Some ''PRACK''"
| "method_symbol method_BYE = Some ''BYE''"
| "method_symbol method_REFER = Some ''REFER''"
| "method_symbol method_INFO = Some ''INFO''"
| "method_symbol method_UPDATE = Some ''UPDATE''"
| "method_symbol method_OPTIONS = Some ''OPTIONS''"
| "method_symbol method_REGISTER = Some ''REGISTER''"
| "method_symbol method_MESSAGE = Some ''MESSAGE''"
| "method_symbol method_SUBSCRIBE = Some ''SUBSCRIBE''"
| "method_symbol method_NOTIFY = Some ''NOTIFY''"
| "method_symbol method_PUBLISH = Some ''PUBLISH''"
| "method_symbol method_PULL = Some ''PULL''"
| "method_symbol method_PUSH = Some ''PUSH''"
| "method_symbol method_STORE = Some ''STORE''"
| "method_symbol method_unknown = None"

definition msg_method :: "rval \<Rightarrow> string \<Rightarrow> nat \<Rightarrow> sip_method option \<Rightarrow> heap \<Rightarrow> heap option" where
  "msg_method parsed at n m h =
     (case m of
        None \<Rightarrow> Some h
      | Some m' \<Rightarrow>
          (case method_symbol m' of
             Some s \<Rightarrow> rb_ivar_set parsed ''@sip_method'' (Imm (Sym s)) h
           | None \<Rightarrow> do {
               h \<leftarrow> set_chars ''@sip_method'' parsed at n h;
               rb_ivar_set parsed ''@is_unknown_method'' (Imm Qtrue) h
             }))"

definition msg_status_code :: "rval \<Rightarrow> string \<Rightarrow> nat \<Rightarrow> heap \<Rightarrow> heap option" where
  "msg_status_code = set_int ''@status_code''"

definition msg_reason_phrase :: "rval \<Rightarrow> string \<Rightarrow> nat \<Rightarrow> heap \<Rightarrow> heap option" where
  "msg_reason_phrase = set_chars ''@reason_phrase''"

definition msg_sip_version :: "rval \<Rightarrow> string \<Rightarrow> nat \<Rightarrow> heap \<Rightarrow> heap option" where
  "msg_sip_version = set_chars ''@sip_version''"

definition msg_via_sent_by_host :: "rval \<Rightarrow> string \<Rightarrow> nat \<Rightarrow> heap \<Rightarrow> heap option" where
  "msg_via_sent_by_host = set_chars ''@via_sent_by_host''"

definition msg_via_sent_by_port :: "rval \<Rightarrow> string \<Rightarrow> nat \<Rightarrow> heap \<Rightarrow> heap option" where
  "msg_via_sent_by_port = set_int ''@via_sent_by_port''"

definition msg_via_branch :: "rval \<Rightarrow> string \<Rightarrow> nat \<Rightarrow> heap \<Rightarrow> heap option" where
  "msg_via_branch = set_chars ''@via_branch''"

definition msg_via_branch_rfc3261 :: "rval \<Rightarrow> string \<Rightarrow> nat \<Rightarrow> heap \<Rightarrow> heap option" where
  "msg_via_branch_rfc3261 parsed at n h = rb_ivar_set parsed ''@via_branch_rfc3261'' (Imm Qtrue) h"

definition msg_via_received :: "rval \<Rightarrow> string \<Rightarrow> nat \<Rightarrow> heap \<Rightarrow> heap option" where
  "msg_via_received = set_chars ''@via_received''"

definition msg_via_has_rport :: "rval \<Rightarrow> heap \<Rightarrow> heap option" where
  "msg_via_has_rport parsed h = rb_ivar_set parsed ''@via_has_rport'' (Imm Qtrue) h"

definition msg_via_has_alias :: "rval \<Rightarrow> heap \<Rightarrow> heap option" where
  "msg_via_has_alias parsed h = rb_ivar_set parsed ''@via_has_alias'' (Imm Qtrue) h"

definition msg_call_id :: "rval \<Rightarrow> string \<Rightarrow> nat \<Rightarrow> heap \<Rightarrow> heap option" where
  "msg_call_id = set_chars ''@call_id''"

text \<open>\<open>strtol\<close> reads on until its number ends, whatever \<open>length\<close> is.\<close>

definition msg_cseq_number :: "rval \<Rightarrow> string \<Rightarrow> nat \<Rightarrow> heap \<Rightarrow> heap option" where
  "msg_cseq_number parsed at n h = rb_ivar_set parsed ''@cseq'' (Imm (LONG2FIX (strtol at 0))) h"

definition msg_max_forwards :: "rval \<Rightarrow> string \<Rightarrow> nat \<Rightarrow> heap \<Rightarrow> heap option" where
  "msg_max_forwards = set_int ''@max_forwards''"

definition msg_content_length :: "rval \<Rightarrow> string \<Rightarrow> nat \<Rightarrow> heap \<Rightarrow> heap option" where
  "msg_content_length parsed at n h =
     rb_ivar_set parsed ''@content_length'' (Imm (LONG2FIX (strtol at 0))) h"

definition msg_from_tag :: "rval \<Rightarrow> string \<Rightarrow> nat \<Rightarrow> heap \<Rightarrow> heap option" where
  "msg_from_tag = set_chars ''@from_tag''"

definition msg_to_tag :: "rval \<Rightarrow> string \<Rightarrow> nat \<Rightarrow> heap \<Rightarrow> heap option" where
  "msg_to_tag = set_chars ''@to_tag''"

subsection \<open>URIs\<close>

text \<open>The object a URI's parts go to; of the Route entries the last, which has to be there.\<close>

definition get_uri_object :: "rval \<Rightarrow> uri_owner option \<Rightarrow> heap \<Rightarrow> rval option" where
  "get_uri_object parsed own h =
     (case own of
        Some uri_owner_ruri \<Rightarrow> rb_ivar_get parsed ''@ruri'' h
      | Some uri_owner_from \<Rightarrow> rb_ivar_get parsed ''@from'' h
      | Some uri_owner_to \<Rightarrow> rb_ivar_get parsed ''@to'' h
      | Some uri_owner_route \<Rightarrow> do {
          routes_array \<leftarrow> rb_ivar_get parsed ''@routes'' h;
          vs \<leftarrow> ary_of routes_array h;
          (if vs = [] then None else Some (last vs))
        }
      | Some uri_owner_contact \<Rightarrow> rb_ivar_get parsed ''@contact'' h
      | None \<Rightarrow> Some parsed)"

definition set_in_uri :: "string \<Rightarrow> rval \<Rightarrow> uri_owner option \<Rightarrow> ruby_value \<Rightarrow> heap \<Rightarrow> heap option" where
  "set_in_uri x parsed own v h = do {
     u \<leftarrow> get_uri_object parsed own h;
     rb_ivar_set u x (Imm v) h
   }"

text \<open>A URI scheme of 0 leaves \<open>v\<close> undefined.\<close>

definition uri_scheme ::
  "rval \<Rightarrow> uri_owner option \<Rightarrow> string \<Rightarrow> nat \<Rightarrow> sip_uri_scheme option \<Rightarrow> heap \<Rightarrow> heap option" where
  "uri_scheme parsed own at n scheme h = do {
     v \<leftarrow> (case scheme of
            Some uri_scheme_sip \<Rightarrow> Some (Sym ''sip'')
          | Some uri_scheme_sips \<Rightarrow> Some (Sym ''sips'')
          | Some uri_scheme_tel \<Rightarrow> Some (Sym ''tel'')
          | Some uri_scheme_unknown \<Rightarrow> map_option (\<lambda>w. Str (my_rb_str_downcase w)) (chars at n)
          | None \<Rightarrow> None);
     set_in_uri ''@scheme'' parsed own v h
   }"

definition uri_full :: "rval \<Rightarrow> uri_owner option \<Rightarrow> string \<Rightarrow> nat \<Rightarrow> heap \<Rightarrow> heap option" where
  "uri_full parsed own at n h = do { v \<leftarrow> chars at n; set_in_uri ''@uri'' parsed own (Str v) h }"

text \<open>
  \<open>my_rb_str_tel_number_clean\<close>: the loop over the rest \<open>s\<close> of the number, where \<open>new_str\<close> is
  what is written so far of a buffer of \<open>len\<close> characters.
\<close>

definition is_separator :: "char \<Rightarrow> bool" where
  "is_separator c \<longleftrightarrow> c = CHR ''-'' \<or> c = CHR ''.'' \<or> c = CHR ''('' \<or> c = CHR '')''"

definition is_A_to_F :: "char \<Rightarrow> bool" where
  "is_A_to_F c \<longleftrightarrow> schar CHR ''A'' \<le> schar c \<and> schar c \<le> schar CHR ''F''"

fun tel_clean_loop :: "nat \<Rightarrow> string \<Rightarrow> string \<Rightarrow> nat \<Rightarrow> (string \<times> nat) option" where
  "tel_clean_loop len [] new_str new_len = Some (new_str, new_len)"
| "tel_clean_loop len (c # s) new_str new_len =
     (if \<not> is_separator c then
        if length new_str < len
        then tel_clean_loop len s (new_str @ [if is_A_to_F c then of_schar (schar c + 32) else c]) new_len
        else None
      else if new_len = 0 then None
      else tel_clean_loop len s new_str (new_len - 1))"

definition my_rb_str_tel_number_clean :: "string \<Rightarrow> string option" where
  "my_rb_str_tel_number_clean str = do {
     (new_str, new_len) \<leftarrow> tel_clean_loop (length str) str [] (length str);
     chars new_str new_len
   }"

definition uri_user ::
  "rval \<Rightarrow> uri_owner option \<Rightarrow> string \<Rightarrow> nat \<Rightarrow> sip_uri_scheme option \<Rightarrow> heap \<Rightarrow> heap option" where
  "uri_user parsed own at n scheme h = do {
     w \<leftarrow> chars at n;
     v \<leftarrow> (if scheme = Some uri_scheme_tel then my_rb_str_tel_number_clean w else my_rb_str_hex_unescape w);
     set_in_uri ''@user'' parsed own (Str v) h
   }"

text \<open>A name without the dot that may end it; \<open>at[length-1]\<close> of an empty one is in front of it.\<close>

definition host_chars :: "string \<Rightarrow> nat \<Rightarrow> string option" where
  "host_chars at n =
     (if n = 0 then None
      else do {
        w \<leftarrow> chars at n;
        chars at (if w ! (n - 1) = CHR ''.'' then n - 1 else n)
      })"

text \<open>
  An IPv6 reference is normalized by \<open>utils_normalize_ipv6\<close>; where that function raises or leaves
  its buffers the callback does not return.
\<close>

definition uri_host ::
  "pton \<Rightarrow> ntop \<Rightarrow> rval \<Rightarrow> uri_owner option \<Rightarrow> string \<Rightarrow> nat \<Rightarrow> host_type \<Rightarrow> heap \<Rightarrow> heap option" where
  "uri_host pton ntop parsed own at n t h = do {
     w \<leftarrow> host_chars at n;
     let v = my_rb_str_downcase w;
     h \<leftarrow> (case t of
            host_type_ipv6 \<Rightarrow>
              (case utils_normalize_ipv6 pton ntop (Str v) False of
                 Inl e \<Rightarrow> None
               | Inr normalized \<Rightarrow> set_in_uri ''@host'' parsed own normalized h)
          | _ \<Rightarrow> set_in_uri ''@host'' parsed own (Str v) h);
     set_in_uri ''@host_type'' parsed own
       (Sym (case t of host_type_domain \<Rightarrow> ''domain'' | host_type_ipv4 \<Rightarrow> ''ipv4''
             | host_type_ipv6 \<Rightarrow> ''ipv6_reference'')) h
   }"

definition uri_port :: "rval \<Rightarrow> uri_owner option \<Rightarrow> string \<Rightarrow> nat \<Rightarrow> heap \<Rightarrow> heap option" where
  "uri_port parsed own at n h = do {
     w \<leftarrow> chars at n; i \<leftarrow> str_to_int w; set_in_uri ''@port'' parsed own (Fix i) h }"

text \<open>A parameter goes to a Hash in a variable, which is made when the first one comes.\<close>

definition param_aset ::
  "string \<Rightarrow> rval \<Rightarrow> string \<Rightarrow> nat \<Rightarrow> string \<Rightarrow> nat \<Rightarrow> heap \<Rightarrow> heap option" where
  "param_aset x owner key key_len val val_len h = do {
     params \<leftarrow> rb_ivar_get owner x h;
     (h, params) \<leftarrow>
       (if params = nil
        then case rb_hash_new h of (h, new) \<Rightarrow> do { h \<leftarrow> rb_ivar_set owner x new h; Some (h, new) }
        else Some (h, params));
     v \<leftarrow> (if 0 < val_len then map_option Str (chars val val_len) else Some Qnil);
     k \<leftarrow> chars key key_len;
     rb_hash_aset params (Str (my_rb_str_downcase k)) (Imm v) h
   }"

definition uri_param ::
  "rval \<Rightarrow> uri_owner option \<Rightarrow> string \<Rightarrow> nat \<Rightarrow> string \<Rightarrow> nat \<Rightarrow> heap \<Rightarrow> heap option" where
  "uri_param parsed own key key_len val val_len h = do {
     uri \<leftarrow> get_uri_object parsed own h;
     (if uri = nil then Some h else param_aset ''@params'' uri key key_len val val_len h)
   }"

fun transport_value :: "sip_transport option \<Rightarrow> string \<Rightarrow> nat \<Rightarrow> ruby_value option" where
  "transport_value (Some transport_udp) at n = Some (Sym ''udp'')"
| "transport_value (Some transport_tcp) at n = Some (Sym ''tcp'')"
| "transport_value (Some transport_tls) at n = Some (Sym ''tls'')"
| "transport_value (Some transport_sctp) at n = Some (Sym ''sctp'')"
| "transport_value (Some transport_ws) at n = Some (Sym ''ws'')"
| "transport_value (Some transport_wss) at n = Some (Sym ''wss'')"
| "transport_value (Some transport_unknown) at n =
     map_option (\<lambda>w. Str (my_rb_str_downcase w)) (chars at n)"
| "transport_value None at n = None"

text \<open>A name without a case leaves \<open>p\<close> and \<open>v\<close> undefined.\<close>

definition uri_known_param ::
  "rval \<Rightarrow> uri_owner option \<Rightarrow> uri_param_name \<Rightarrow> string \<Rightarrow> nat \<Rightarrow> sip_transport option \<Rightarrow> heap \<Rightarrow> heap option"
  where
  "uri_known_param parsed own param_name at n param_value h =
     (case param_name of
        uri_param_transport \<Rightarrow> do {
          v \<leftarrow> transport_value param_value at n;
          set_in_uri ''@transport_param'' parsed own v h
        }
      | uri_param_ovid \<Rightarrow> do { v \<leftarrow> chars at n; set_in_uri ''@ovid_param'' parsed own (Str v) h }
      | uri_tel_phone_context \<Rightarrow>
          if n = 0 then Some h
          else do {
            w \<leftarrow> host_chars at n;
            set_in_uri ''@phone_context_param'' parsed own (Str (my_rb_str_downcase w)) h
          }
      | _ \<Rightarrow> None)"

definition uri_has_param :: "rval \<Rightarrow> uri_owner option \<Rightarrow> uri_param_name \<Rightarrow> heap \<Rightarrow> heap option" where
  "uri_has_param parsed own param_name h =
     (case param_name of
        uri_param_lr \<Rightarrow> set_in_uri ''@lr_param'' parsed own Qtrue h
      | uri_param_ob \<Rightarrow> set_in_uri ''@ob_param'' parsed own Qtrue h
      | _ \<Rightarrow> None)"

definition uri_headers :: "rval \<Rightarrow> uri_owner option \<Rightarrow> string \<Rightarrow> nat \<Rightarrow> heap \<Rightarrow> heap option" where
  "uri_headers parsed own at n h = do { v \<leftarrow> chars at n; set_in_uri ''@headers'' parsed own (Str v) h }"

definition uri_display_name :: "rval \<Rightarrow> uri_owner option \<Rightarrow> string \<Rightarrow> nat \<Rightarrow> heap \<Rightarrow> heap option" where
  "uri_display_name parsed own at n h =
     (if n = 0 then Some h
      else do { v \<leftarrow> chars at n; set_in_uri ''@display_name'' parsed own (Str v) h })"

subsection \<open>Parts of header fields\<close>

definition header_core_value :: "rval \<Rightarrow> header_field \<Rightarrow> string \<Rightarrow> nat \<Rightarrow> heap \<Rightarrow> heap option" where
  "header_core_value parsed hf at n h =
     (if n = 0 then Some h
      else do {
        v \<leftarrow> chars at n;
        (case hf of
           header_field_via \<Rightarrow> rb_ivar_set parsed ''@via_core_value'' (Imm (Str v)) h
         | _ \<Rightarrow> Some h)
      })"

definition header_param ::
  "rval \<Rightarrow> header_field \<Rightarrow> string \<Rightarrow> nat \<Rightarrow> string \<Rightarrow> nat \<Rightarrow> heap \<Rightarrow> heap option" where
  "header_param parsed hf key key_len val val_len h =
     (case hf of
        header_field_via \<Rightarrow> param_aset ''@via_params'' parsed key key_len val val_len h
      | _ \<Rightarrow> Some h)"

definition msg_contact_params :: "rval \<Rightarrow> string \<Rightarrow> nat \<Rightarrow> heap \<Rightarrow> heap option" where
  "msg_contact_params parsed at n h =
     (if n = 0 then Some h else set_chars ''@contact_params'' parsed at n h)"

definition msg_contact_has_reg_id :: "rval \<Rightarrow> heap \<Rightarrow> heap option" where
  "msg_contact_has_reg_id parsed h = rb_ivar_set parsed ''@contact_has_reg_id'' (Imm Qtrue) h"

text \<open>Only three header fields have an owner; another leaves \<open>id_option_tag_owner\<close> undefined.\<close>

fun option_tag_owner :: "header_field \<Rightarrow> string option" where
  "option_tag_owner header_field_require = Some ''@require''"
| "option_tag_owner header_field_proxy_require = Some ''@proxy_require''"
| "option_tag_owner header_field_supported = Some ''@supported''"
| "option_tag_owner _ = None"

definition option_tag :: "rval \<Rightarrow> header_field \<Rightarrow> string \<Rightarrow> nat \<Rightarrow> heap \<Rightarrow> heap option" where
  "option_tag parsed hf at n h = do {
     x \<leftarrow> option_tag_owner hf;
     owner \<leftarrow> rb_ivar_get parsed x h;
     (h, owner) \<leftarrow>
       (if owner = nil
        then case rb_ary_new [] h of (h, new) \<Rightarrow> do { h \<leftarrow> rb_ivar_set parsed x new h; Some (h, new) }
        else Some (h, owner));
     w \<leftarrow> chars at n;
     rb_ary_push owner (Imm (Str (my_rb_str_downcase w))) h
   }"

end
