(* ===== verification/Ragel_Cond.thy ===== *)
theory Ragel_Cond
  imports Ragel_Table
begin

text \<open>
  The loop of \<open>ragel -T0\<close> for a grammar with conditions (ext/sip_parser/sip_message_parser.c and
  sip_uri_parser.c).  A state may have ranges of characters for which conditions are asked; such a
  character is widened to a code beyond the characters that says which of them hold.  The second
  half says when no array is read outside its bounds, from checks that go through the arrays once.
\<close>

record rgl_cond_tables =
  c_offsets :: "int list"
  c_lengths :: "int list"
  c_keys :: "int list"
  c_spaces :: "int list"
  c_machine :: rgl_tables

text \<open>\<open>_widec\<close>; what a space of conditions makes of a character is the argument \<open>widen\<close>.\<close>

definition t0_widen :: "rgl_cond_tables \<Rightarrow> (int \<Rightarrow> int \<Rightarrow> int) \<Rightarrow> int \<Rightarrow> int \<Rightarrow> int option" where
  "t0_widen T widen cs c = do {
     klen \<leftarrow> rd (c_lengths T) cs;
     off \<leftarrow> rd (c_offsets T) cs;
     (if 0 < klen then do {
        found \<leftarrow> find_range (c_keys T) (off * 2) (off * 2 + klen * 2 - 2) c;
        (case found of
           None \<Rightarrow> Some c
         | Some mid \<Rightarrow> do {
             space \<leftarrow> rd (c_spaces T) (off + (mid - off * 2) div 2);
             Some (widen space c)
           })
      } else Some c)
   }"

definition cond_step ::
  "rgl_cond_tables \<Rightarrow> (int \<Rightarrow> int \<Rightarrow> int) \<Rightarrow> int \<Rightarrow> int \<Rightarrow> (int \<times> int list) option" where
  "cond_step T widen cs c = do {
     w \<leftarrow> t0_widen T widen cs c;
     t0_step (c_machine T) cs w
   }"

subsection \<open>Checks that go through an array\<close>

text \<open>
  \<open>P\<close> holds of the elements with their places, from \<open>n\<close> on, and \<open>m\<close> is where they end; then the
  same for two and for six arrays side by side.  The arrays come in pieces, so the checks do too.
\<close>

fun all1 :: "(int \<Rightarrow> 'a \<Rightarrow> bool) \<Rightarrow> int \<Rightarrow> int \<Rightarrow> 'a list \<Rightarrow> bool" where
  "all1 P n m [] \<longleftrightarrow> n = m"
| "all1 P n m (x # xs) \<longleftrightarrow> P n x \<and> all1 P (n + 1) m xs"

fun all2 :: "(int \<Rightarrow> 'a \<Rightarrow> 'b \<Rightarrow> bool) \<Rightarrow> int \<Rightarrow> int \<Rightarrow> 'a list \<Rightarrow> 'b list \<Rightarrow> bool" where
  "all2 P n m (x # xs) (y # ys) \<longleftrightarrow> P n x y \<and> all2 P (n + 1) m xs ys"
| "all2 P n m xs ys \<longleftrightarrow> xs = [] \<and> ys = [] \<and> n = m"

fun all6 ::
  "(int \<Rightarrow> 'a \<Rightarrow> 'b \<Rightarrow> 'c \<Rightarrow> 'd \<Rightarrow> 'e \<Rightarrow> 'f \<Rightarrow> bool) \<Rightarrow> int \<Rightarrow> int \<Rightarrow>
   'a list \<Rightarrow> 'b list \<Rightarrow> 'c list \<Rightarrow> 'd list \<Rightarrow> 'e list \<Rightarrow> 'f list \<Rightarrow> bool" where
  "all6 P n m (a # as) (b # bs) (c # cs) (d # ds) (e # es) (f # fs) \<longleftrightarrow>
     P n a b c d e f \<and> all6 P (n + 1) m as bs cs ds es fs"
| "all6 P n m as bs cs ds es fs \<longleftrightarrow>
     as = [] \<and> bs = [] \<and> cs = [] \<and> ds = [] \<and> es = [] \<and> fs = [] \<and> n = m"

lemma all1_append: "all1 P n k xs \<Longrightarrow> all1 P k m ys \<Longrightarrow> all1 P n m (xs @ ys)"
  by (induction xs arbitrary: n) auto

lemma all1_nth: "all1 P n m xs \<Longrightarrow> int (length xs) = m - n \<and> (\<forall>i < length xs. P (n + int i) (xs ! i))"
proof (induction xs arbitrary: n)
  case (Cons x xs)
  have "P (n + int i) ((x # xs) ! i)" if "i < length (x # xs)" for i
    using Cons.IH [of "n + 1"] Cons.prems that by (cases i) (auto simp: algebra_simps)
  then show ?case using Cons.IH [of "n + 1"] Cons.prems by simp
qed simp

lemma all1_mono: "all1 P n m xs \<Longrightarrow> (\<And>i x. n \<le> i \<Longrightarrow> i < m \<Longrightarrow> P i x \<Longrightarrow> Q i x) \<Longrightarrow> all1 Q n m xs"
proof (induction xs arbitrary: n)
  case (Cons x xs)
  have "int (length (x # xs)) = m - n" using all1_nth [OF Cons.prems(1)] by blast
  then have "n < m" by simp
  then show ?case using Cons by auto
qed simp

lemma all2_append: "all2 P n k xs ys \<Longrightarrow> all2 P k m xs' ys' \<Longrightarrow> all2 P n m (xs @ xs') (ys @ ys')"
  by (induction P n k xs ys rule: all2.induct) auto

lemma all2_nth:
  "all2 P n m xs ys \<Longrightarrow> int (length xs) = m - n \<and> length ys = length xs \<and>
   (\<forall>i < length xs. P (n + int i) (xs ! i) (ys ! i))"
proof (induction P n m xs ys rule: all2.induct)
  case (1 P n m x xs y ys)
  have "P (n + int i) ((x # xs) ! i) ((y # ys) ! i)" if "i < length (x # xs)" for i
    using 1 that by (cases i) (auto simp: algebra_simps)
  then show ?case using 1 by auto
qed auto

lemma all6_append:
  "all6 P n k as bs cs ds es fs \<Longrightarrow> all6 P k m as' bs' cs' ds' es' fs' \<Longrightarrow>
   all6 P n m (as @ as') (bs @ bs') (cs @ cs') (ds @ ds') (es @ es') (fs @ fs')"
  by (induction P n k as bs cs ds es fs rule: all6.induct) auto

lemma all6_nth:
  "all6 P n m as bs cs ds es fs \<Longrightarrow>
   int (length as) = m - n \<and> length bs = length as \<and> length cs = length as \<and> length ds = length as \<and>
   length es = length as \<and> length fs = length as \<and>
   (\<forall>i < length as. P (n + int i) (as ! i) (bs ! i) (cs ! i) (ds ! i) (es ! i) (fs ! i))"
proof (induction P n m as bs cs ds es fs rule: all6.induct)
  case (1 P n m a as b bs c cs d ds e es f fs)
  have "P (n + int i) ((a # as) ! i) ((b # bs) ! i) ((c # cs) ! i) ((d # ds) ! i) ((e # es) ! i) ((f # fs) ! i)"
    if "i < length (a # as)" for i
    using 1 that by (cases i) (auto simp: algebra_simps)
  then show ?case using 1 by auto
qed auto

lemma all1_length: "all1 P n m xs \<Longrightarrow> int (length xs) = m - n"
  using all1_nth by blast

lemma all2_lengths:
  assumes "all2 P n m xs ys"
  shows "int (length xs) = m - n" "int (length ys) = m - n"
  using all2_nth [OF assms] by simp_all

lemma all6_lengths:
  assumes "all6 P n m as bs cs ds es fs"
  shows "int (length as) = m - n" "int (length bs) = m - n" "int (length cs) = m - n"
    "int (length ds) = m - n" "int (length es) = m - n" "int (length fs) = m - n"
  using all6_nth [OF assms] by simp_all

text \<open>An element of an array in pieces and rows.\<close>

lemma rd_piece:
  "int (length xs) \<le> i \<Longrightarrow> rd (xs @ ys) i = rd ys (i - int (length xs))"
  "i < int (length xs) \<Longrightarrow> rd (xs @ ys) i = rd xs i"
  by (simp_all add: rd_append)

lemma rd_row:
  "8 \<le> i \<Longrightarrow> rd (concat ([a, b, c, d, e, f, g, h] # rs)) i = rd (concat rs) (i - 8)"
  "rd (concat ([a, b, c, d, e, f, g, h] # rs)) 0 = Some a"
  "rd (concat ([a, b, c, d, e, f, g, h] # rs)) 1 = Some b"
  "rd (concat ([a, b, c, d, e, f, g, h] # rs)) 2 = Some c"
  "rd (concat ([a, b, c, d, e, f, g, h] # rs)) 3 = Some d"
  "rd (concat ([a, b, c, d, e, f, g, h] # rs)) 4 = Some e"
  "rd (concat ([a, b, c, d, e, f, g, h] # rs)) 5 = Some f"
  "rd (concat ([a, b, c, d, e, f, g, h] # rs)) 6 = Some g"
  "rd (concat ([a, b, c, d, e, f, g, h] # rs)) 7 = Some h"
  by (simp_all add: rd_append)

lemmas rd_walk = rd_piece rd_row simp_thms arith_simps rel_simps diff_numeral_special

subsection \<open>The sequences of actions\<close>

text \<open>
  \<open>actions\<close> is a list of sequences, each with its length in front.  A list of the sequences with
  the places where they start says what is where.
\<close>

fun ilen :: "'a list \<Rightarrow> int" where
  "ilen [] = 0"
| "ilen (x # xs) = ilen xs + 1"

lemma ilen_length: "ilen xs = int (length xs)"
  by (induction xs) auto

fun laid_out :: "int \<Rightarrow> (int \<times> int list) list \<Rightarrow> bool" where
  "laid_out n [] \<longleftrightarrow> True"
| "laid_out n ((a, as) # L) \<longleftrightarrow> a = n \<and> laid_out (n + (ilen as + 1)) L"

definition layout :: "(int \<times> int list) list \<Rightarrow> int list" where
  "layout L = concat (map (\<lambda>(a, as). ilen as # as) L)"

lemma layout_simps: "layout [] = []" "layout ((a, as) # L) = ilen as # as @ layout L"
  by (simp_all add: layout_def)

lemma laid_out_parts:
  "laid_out (int (length pre)) L \<Longrightarrow> (a, as) \<in> set L \<Longrightarrow>
   \<exists>ys zs. pre @ layout L = ys @ ilen as # as @ zs \<and> a = int (length ys)"
proof (induction L arbitrary: pre)
  case (Cons x L)
  obtain b bs where x: "x = (b, bs)" by (cases x)
  show ?case
  proof (cases "(a, as) = x")
    case True
    then show ?thesis using Cons.prems x
      by (intro exI [of _ pre] exI [of _ "layout L"]) (simp add: layout_simps)
  next
    case False
    have "laid_out (int (length (pre @ ilen bs # bs))) L"
      using Cons.prems(1) x by (simp add: ilen_length algebra_simps)
    moreover have "(a, as) \<in> set L" using Cons.prems(2) False by simp
    ultimately show ?thesis using Cons.IH [of "pre @ ilen bs # bs"] x by (simp add: layout_simps)
  qed
qed simp

lemma acts_laid_out:
  assumes "t_actions T = layout L" and "laid_out 0 L" and "(a, as) \<in> set L" and "a \<noteq> 0"
  shows "t0_acts_at T a = Some as"
proof -
  obtain ys zs where "t_actions T = ys @ ilen as # as @ zs" "a = int (length ys)"
    using laid_out_parts [of "[]" L a as] assms(1-3) by auto
  then show ?thesis using assms(4)
    by (simp add: t0_acts_at_def rd_def nth_append nat_add_distrib ilen_length)
qed

text \<open>The length of an array that is written in rows of eight, the last one shorter.\<close>

fun rows_length :: "'a list list \<Rightarrow> int" where
  "rows_length [] = 0"
| "rows_length (r # rs) = rows_length rs + ilen r"

lemma rows_length: "int (length (concat rs)) = rows_length rs"
  by (induction rs) (simp_all add: ilen_length)

lemma rows_length_eight:
  "rows_length ([a, b, c, d, e, f, g, h] # rs) = rows_length rs + 8"
  "rows_length ([a, b, c, d, e, f, g] # rs) = rows_length rs + 7"
  "rows_length ([a, b, c, d, e, f] # rs) = rows_length rs + 6"
  "rows_length ([a, b, c, d, e] # rs) = rows_length rs + 5"
  "rows_length ([a, b, c, d] # rs) = rows_length rs + 4"
  "rows_length ([a, b, c] # rs) = rows_length rs + 3"
  "rows_length ([a, b] # rs) = rows_length rs + 2"
  "rows_length ([a] # rs) = rows_length rs + 1"
  by simp_all

text \<open>What a check of numbers written out is computed with.\<close>

lemma all2_Nil: "all2 P n m [] [] \<longleftrightarrow> n = m"
  by simp

lemma all6_Nil: "all6 P n m [] [] [] [] [] [] \<longleftrightarrow> n = m"
  by simp

declare all1.simps [row_arith] all2.simps(1) [row_arith] all2_Nil [row_arith] all6.simps(1) [row_arith]
  all6_Nil [row_arith] ilen.simps [row_arith] laid_out.simps [row_arith] layout_simps [row_arith]
  rows_length.simps(1) [row_arith] rows_length_eight [row_arith]
  concat.simps [row_arith] append.simps [row_arith]

subsection \<open>Searches stay inside\<close>

lemma rd_in: "0 \<le> i \<Longrightarrow> i < int (length xs) \<Longrightarrow> rd xs i = Some (xs ! nat i) \<and> xs ! nat i \<in> set xs"
  by (simp add: rd_nth)

lemma find_single_in:
  assumes "0 \<le> lower" and "upper < int (length keys)"
  shows "\<exists>r. find_single keys lower upper c = Some r \<and> (\<forall>m. r = Some m \<longrightarrow> lower \<le> m \<and> m \<le> upper)"
  using assms
proof (induction keys lower upper c rule: find_single.induct)
  case (1 keys lower upper c)
  show ?case
  proof (cases "upper < lower")
    case True
    then show ?thesis by (simp add: find_single.simps)
  next
    case False
    let ?mid = "lower + (upper - lower) div 2"
    have mid: "lower \<le> ?mid" "?mid \<le> upper" using False by simp_all
    then have r: "rd keys ?mid = Some (keys ! nat ?mid)" using "1.prems" by (simp add: rd_nth)
    consider "c < keys ! nat ?mid" | "keys ! nat ?mid < c" | "c = keys ! nat ?mid" by linarith
    then show ?thesis
    proof cases
      case 1
      then have e: "find_single keys lower upper c = find_single keys lower (?mid - 1) c"
        using False r by (subst find_single.simps) (simp add: Let_def)
      show ?thesis unfolding e using "1.IH"(1) [OF False refl r 1] "1.prems" mid by fastforce
    next
      case 2
      then have e: "find_single keys lower upper c = find_single keys (?mid + 1) upper c"
        using False r by (subst find_single.simps) (simp add: Let_def)
      show ?thesis unfolding e using "1.IH"(2) [OF False refl r _ 2] "1.prems" mid 2 by fastforce
    next
      case 3
      then have "find_single keys lower upper c = Some (Some ?mid)"
        using False r by (subst find_single.simps) (simp add: Let_def)
      then show ?thesis using mid by simp
    qed
  qed
qed

lemma even_mid:
  "(mid :: int) = lower + ((upper - lower) div 2 - (upper - lower) div 2 mod 2) \<Longrightarrow> even (mid - lower)"
  by (simp add: even_iff_mod_2_eq_zero mod_diff_eq)

lemma find_range_in:
  assumes "0 \<le> lower" and "upper + 1 < int (length keys)" and "even (upper - lower)"
  shows "\<exists>r. find_range keys lower upper c = Some r \<and>
    (\<forall>m. r = Some m \<longrightarrow> lower \<le> m \<and> m \<le> upper \<and> even (m - lower))"
  using assms
proof (induction keys lower upper c rule: find_range.induct)
  case (1 keys lower upper c)
  show ?case
  proof (cases "upper < lower")
    case True
    then show ?thesis by (simp add: find_range.simps)
  next
    case False
    define mid where "mid = lower + ((upper - lower) div 2 - (upper - lower) div 2 mod 2)"
    have mid: "lower \<le> mid" "mid \<le> upper" using False range_mid [of lower upper] by (simp_all add: mid_def)
    have ev: "even (mid - lower)" by (rule even_mid [OF mid_def])
    have r: "rd keys mid = Some (keys ! nat mid)" "rd keys (mid + 1) = Some (keys ! nat (mid + 1))"
      using mid "1.prems" by (simp_all add: rd_nth)
    have run: "find_range keys lower upper c =
        (if c < keys ! nat mid then find_range keys lower (mid - 2) c
         else if keys ! nat (mid + 1) < c then find_range keys (mid + 2) upper c else Some (Some mid))"
      using False r by (subst find_range.simps) (simp add: Let_def flip: mid_def)
    consider "c < keys ! nat mid" | "\<not> c < keys ! nat mid" "keys ! nat (mid + 1) < c"
      | "\<not> c < keys ! nat mid" "\<not> keys ! nat (mid + 1) < c" by blast
    then show ?thesis
    proof cases
      case 1
      have "\<exists>r. find_range keys lower (mid - 2) c = Some r \<and>
          (\<forall>m. r = Some m \<longrightarrow> lower \<le> m \<and> m \<le> mid - 2 \<and> even (m - lower))"
        by (rule "1.IH"(1) [OF False refl mid_def _ r [folded mid_def] 1]) (use "1.prems" mid ev in auto)
      then show ?thesis unfolding run using 1 mid by fastforce
    next
      case 2
      have "\<exists>r. find_range keys (mid + 2) upper c = Some r \<and>
          (\<forall>m. r = Some m \<longrightarrow> mid + 2 \<le> m \<and> m \<le> upper \<and> even (m - (mid + 2)))"
        by (rule "1.IH"(2) [OF False refl mid_def _ r [folded mid_def] 2]) (use "1.prems" mid ev in auto)
      then show ?thesis unfolding run using 2 mid ev by fastforce
    next
      case 3
      then show ?thesis unfolding run using mid ev by simp
    qed
  qed
qed


subsection \<open>Arrays that are read inside\<close>

text \<open>
  One state: its conditions, keys and places in \<open>indicies\<close> are inside arrays of the lengths given.
  Then all of it: every place in \<open>indicies\<close> is a transition, and every transition has a state and
  actions with codes below \<open>m\<close>.
\<close>

definition state_inside :: "int \<Rightarrow> int \<Rightarrow> int \<Rightarrow> int \<Rightarrow> int \<times> int \<times> int \<times> int \<times> int \<times> int \<Rightarrow> bool" where
  "state_inside nck ncs nk ni = (\<lambda>(co, cl, ko, sl, rl, io).
     0 \<le> co \<and> 2 * (co + cl) \<le> nck \<and> co + cl \<le> ncs \<and>
     0 \<le> ko \<and> 0 \<le> sl \<and> 0 \<le> rl \<and> 0 \<le> io \<and> ko + sl + 2 * rl \<le> nk \<and> io + sl + rl < ni)"

definition states_of :: "rgl_cond_tables \<Rightarrow> (int \<times> int \<times> int \<times> int \<times> int \<times> int) list" where
  "states_of T =
     zip (c_offsets T) (zip (c_lengths T) (zip (t_key_offsets (c_machine T))
       (zip (t_single_lengths (c_machine T)) (zip (t_range_lengths (c_machine T))
          (t_index_offsets (c_machine T))))))"

definition codes_inside :: "rgl_tables \<Rightarrow> int \<Rightarrow> int \<Rightarrow> bool" where
  "codes_inside T m a \<longleftrightarrow>
     (case t0_acts_at T a of None \<Rightarrow> False | Some as \<Rightarrow> list_all (\<lambda>a. 0 \<le> a \<and> a < m) as)"

definition all_inside :: "rgl_cond_tables \<Rightarrow> nat \<Rightarrow> int \<Rightarrow> bool" where
  "all_inside T n m \<longleftrightarrow>
     (let M = c_machine T in
        length (c_offsets T) = n \<and> length (c_lengths T) = n \<and> length (t_key_offsets M) = n \<and>
        length (t_single_lengths M) = n \<and> length (t_range_lengths M) = n \<and> length (t_index_offsets M) = n \<and>
        (\<forall>q \<in> set (states_of T).
           state_inside (int (length (c_keys T))) (int (length (c_spaces T)))
             (int (length (t_trans_keys M))) (int (length (t_indicies M))) q) \<and>
        (\<forall>i \<in> set (t_indicies M). 0 \<le> i \<and> i < int (length (t_trans_targs M))) \<and>
        length (t_trans_actions M) = length (t_trans_targs M) \<and>
        (\<forall>t \<in> set (t_trans_targs M). 0 \<le> t \<and> t < int n) \<and>
        (\<forall>a \<in> set (t_trans_actions M). codes_inside M m a))"

lemma states_of_nth:
  assumes "all_inside T n m" and "0 \<le> cs" and "cs < int n"
  defines "M \<equiv> c_machine T"
  obtains co cl ko sl rl io where
    "rd (c_offsets T) cs = Some co" "rd (c_lengths T) cs = Some cl"
    "rd (t_key_offsets M) cs = Some ko" "rd (t_single_lengths M) cs = Some sl"
    "rd (t_range_lengths M) cs = Some rl" "rd (t_index_offsets M) cs = Some io"
    "state_inside (int (length (c_keys T))) (int (length (c_spaces T)))
       (int (length (t_trans_keys M))) (int (length (t_indicies M))) (co, cl, ko, sl, rl, io)"
proof -
  have n: "nat cs < n" using assms(2,3) by simp
  have l: "length (c_offsets T) = n" "length (c_lengths T) = n" "length (t_key_offsets M) = n"
      "length (t_single_lengths M) = n" "length (t_range_lengths M) = n" "length (t_index_offsets M) = n"
    using assms(1) by (simp_all add: all_inside_def Let_def M_def)
  have "states_of T ! nat cs \<in> set (states_of T)"
    using n l by (intro nth_mem) (simp add: states_of_def M_def)
  then have "state_inside (int (length (c_keys T))) (int (length (c_spaces T)))
      (int (length (t_trans_keys M))) (int (length (t_indicies M))) (states_of T ! nat cs)"
    using assms(1) by (simp add: all_inside_def Let_def M_def)
  moreover have "states_of T ! nat cs = (c_offsets T ! nat cs, c_lengths T ! nat cs, t_key_offsets M ! nat cs,
      t_single_lengths M ! nat cs, t_range_lengths M ! nat cs, t_index_offsets M ! nat cs)"
    using n l by (simp add: states_of_def M_def)
  ultimately show ?thesis using that assms(2,3) l by (simp add: rd_nth)
qed

lemma t0_match_inside:
  assumes "rd (t_key_offsets M) cs = Some ko" "rd (t_single_lengths M) cs = Some sl"
    "rd (t_range_lengths M) cs = Some rl" "rd (t_index_offsets M) cs = Some io"
    and "0 \<le> ko" "0 \<le> sl" "0 \<le> rl" "0 \<le> io" "ko + sl + 2 * rl \<le> int (length (t_trans_keys M))"
  shows "\<exists>place. t0_match M cs w = Some place \<and> io \<le> place \<and> place \<le> io + sl + rl"
proof -
  have single: "\<exists>r. (if sl > 0 then find_single (t_trans_keys M) ko (ko + sl - 1) w else Some None) = Some r \<and>
      (\<forall>m. r = Some m \<longrightarrow> ko \<le> m \<and> m \<le> ko + sl - 1)"
    using find_single_in [of ko "ko + sl - 1" "t_trans_keys M" w] assms by simp
  have range: "\<exists>r. (if rl > 0 then find_range (t_trans_keys M) (ko + sl) (ko + sl + rl * 2 - 2) w else Some None) = Some r \<and>
      (\<forall>m. r = Some m \<longrightarrow> ko + sl \<le> m \<and> m \<le> ko + sl + rl * 2 - 2)"
    using find_range_in [of "ko + sl" "ko + sl + rl * 2 - 2" "t_trans_keys M" w] assms by fastforce
  obtain r where r: "(if sl > 0 then find_single (t_trans_keys M) ko (ko + sl - 1) w else Some None) = Some r"
      "\<forall>m. r = Some m \<longrightarrow> ko \<le> m \<and> m \<le> ko + sl - 1"
    using single by blast
  obtain q where q: "(if rl > 0 then find_range (t_trans_keys M) (ko + sl) (ko + sl + rl * 2 - 2) w else Some None) = Some q"
      "\<forall>m. q = Some m \<longrightarrow> ko + sl \<le> m \<and> m \<le> ko + sl + rl * 2 - 2"
    using range by blast
  have k: "(if sl > 0 then ko + sl else ko) = ko + sl" "(if sl > 0 then io + sl else io) = io + sl"
    "(if rl > 0 then io + sl + rl else io + sl) = io + sl + rl"
    using assms by simp_all
  have "t0_match M cs w =
      (case r of
         Some mid \<Rightarrow> Some (io + (mid - ko))
       | None \<Rightarrow> (case q of Some mid \<Rightarrow> Some (io + sl + (mid - (ko + sl)) div 2) | None \<Rightarrow> Some (io + sl + rl)))"
    unfolding t0_match_def assms(1-4) bind.bind_lunit r(1) Let_def k q(1)
    by (cases r; cases q) (simp_all add: assms(1-4) k q(1))
  then show ?thesis using r(2) q(2) assms by (cases r; cases q) auto
qed

lemma rd_set: "rd xs i = Some x \<Longrightarrow> x \<in> set xs"
  by (auto simp: rd_def split: if_splits)

lemma rd_SomeD: "rd xs i = Some x \<Longrightarrow> \<exists>k < length xs. i = int k \<and> x = xs ! k"
  by (intro exI [of _ "nat i"]) (auto simp: rd_def split: if_splits)

lemma all1_rd: "all1 P 0 m xs \<Longrightarrow> rd xs i = Some x \<Longrightarrow> P i x"
  using all1_nth [of P 0 m xs] by (auto dest: rd_SomeD)

lemma all2_rd: "all2 P 0 m xs ys \<Longrightarrow> rd xs i = Some x \<Longrightarrow> rd ys i = Some y \<Longrightarrow> P i x y"
  using all2_nth [of P 0 m xs ys] by (auto dest!: rd_SomeD)

text \<open>
  A step takes one of the transitions in the row of its state: \<open>place\<close> is where it is in
  \<open>indicies\<close>, \<open>t\<close> the transition and \<open>a\<close> where its actions start.
\<close>

definition takes ::
  "rgl_cond_tables \<Rightarrow> int \<Rightarrow> int \<Rightarrow> int \<Rightarrow> int \<Rightarrow> int \<times> int list \<Rightarrow> bool" where
  "takes T cs place t a = (\<lambda>(q, as).
     let M = c_machine T in
       rd (t_indicies M) place = Some t \<and> rd (t_trans_targs M) t = Some q \<and>
       rd (t_trans_actions M) t = Some a \<and> t0_acts_at M a = Some as \<and>
       (\<exists>io sl rl.
          rd (t_index_offsets M) cs = Some io \<and> rd (t_single_lengths M) cs = Some sl \<and>
          rd (t_range_lengths M) cs = Some rl \<and> io \<le> place \<and> place \<le> io + sl + rl))"

theorem cond_step_takes:
  assumes T: "all_inside T n m" and cs: "0 \<le> cs" "cs < int n"
  shows "\<exists>place t a r. cond_step T widen cs c = Some r \<and> takes T cs place t a r"
proof -
  let ?M = "c_machine T"
  obtain co cl ko sl rl io where rds: "rd (c_offsets T) cs = Some co" "rd (c_lengths T) cs = Some cl"
      "rd (t_key_offsets ?M) cs = Some ko" "rd (t_single_lengths ?M) cs = Some sl"
      "rd (t_range_lengths ?M) cs = Some rl" "rd (t_index_offsets ?M) cs = Some io"
    and ins: "state_inside (int (length (c_keys T))) (int (length (c_spaces T)))
       (int (length (t_trans_keys ?M))) (int (length (t_indicies ?M))) (co, cl, ko, sl, rl, io)"
    by (rule states_of_nth [OF T cs])
  have "\<exists>w. t0_widen T widen cs c = Some w"
  proof (cases "0 < cl")
    case True
    have "\<exists>r. find_range (c_keys T) (co * 2) (co * 2 + cl * 2 - 2) c = Some r \<and>
        (\<forall>m. r = Some m \<longrightarrow> co * 2 \<le> m \<and> m \<le> co * 2 + cl * 2 - 2 \<and> even (m - co * 2))"
      using ins by (intro find_range_in) (auto simp: state_inside_def)
    then obtain r where r: "find_range (c_keys T) (co * 2) (co * 2 + cl * 2 - 2) c = Some r"
        "\<forall>m. r = Some m \<longrightarrow> co * 2 \<le> m \<and> m \<le> co * 2 + cl * 2 - 2" by blast
    show ?thesis
    proof (cases r)
      case (Some mid)
      have "\<exists>s. rd (c_spaces T) (co + (mid - co * 2) div 2) = Some s"
        using rd_in [of "co + (mid - co * 2) div 2" "c_spaces T"] r(2) Some ins
        by (auto simp: state_inside_def)
      then show ?thesis using rds(1,2) r(1) Some True by (auto simp: t0_widen_def)
    qed (use rds r True in \<open>simp add: t0_widen_def\<close>)
  qed (use rds in \<open>simp add: t0_widen_def\<close>)
  then obtain w where w: "t0_widen T widen cs c = Some w" ..
  obtain place where pl: "t0_match ?M cs w = Some place" "io \<le> place" "place \<le> io + sl + rl"
    using t0_match_inside [OF rds(3-6)] ins by (auto simp: state_inside_def)
  have "0 \<le> place" "place < int (length (t_indicies ?M))" using pl ins by (auto simp: state_inside_def)
  from rd_in [OF this] obtain t where t: "rd (t_indicies ?M) place = Some t" "t \<in> set (t_indicies ?M)" by blast
  have "0 \<le> t" "t < int (length (t_trans_targs ?M))" "length (t_trans_actions ?M) = length (t_trans_targs ?M)"
    using T t(2) by (auto simp: all_inside_def Let_def)
  then obtain q a where q: "rd (t_trans_targs ?M) t = Some q" "q \<in> set (t_trans_targs ?M)"
      "rd (t_trans_actions ?M) t = Some a" "a \<in> set (t_trans_actions ?M)"
    using rd_in [of t "t_trans_targs ?M"] rd_in [of t "t_trans_actions ?M"] by auto
  have "codes_inside ?M m a" using T q by (auto simp: all_inside_def Let_def)
  then obtain as where as: "t0_acts_at ?M a = Some as"
    by (auto simp: codes_inside_def split: option.splits)
  have "cond_step T widen cs c = Some (q, as)"
    using w pl(1) t(1) q as by (simp add: cond_step_def t0_step_def)
  moreover have "takes T cs place t a (q, as)"
    using rds t(1) q as pl by (auto simp: takes_def Let_def)
  ultimately show ?thesis by blast
qed

theorem cond_step_inside:
  assumes T: "all_inside T n m" and cs: "0 \<le> cs" "cs < int n"
  shows "\<exists>cs' as. cond_step T widen cs c = Some (cs', as) \<and> 0 \<le> cs' \<and> cs' < int n \<and>
    (\<forall>a \<in> set as. 0 \<le> a \<and> a < m)"
proof -
  let ?M = "c_machine T"
  obtain place t a q as where step: "cond_step T widen cs c = Some (q, as)" and k: "takes T cs place t a (q, as)"
    using cond_step_takes [OF assms, of widen c] by (metis surj_pair)
  have "0 \<le> t" "t < int (length (t_trans_targs ?M))" "length (t_trans_actions ?M) = length (t_trans_targs ?M)"
    using T k rd_set [of "t_indicies ?M" place t] by (auto simp: all_inside_def takes_def Let_def)
  then have "q \<in> set (t_trans_targs ?M)" "a \<in> set (t_trans_actions ?M)"
    using k rd_set by (auto simp: takes_def Let_def)
  then have "0 \<le> q" "q < int n" "codes_inside ?M m a"
    using T by (auto simp: all_inside_def Let_def)
  then show ?thesis using step k by (auto simp: takes_def Let_def codes_inside_def list_all_iff)
qed

end
