(* ===== verification/Sip_Parser.thy ===== *)
theory Sip_Parser
  imports Sip_Message Ragel_Cond
begin

text \<open>
  The C of ext/sip_parser/sip_message_parser.rl as generated in sip_message_parser.c: the parser
  struct, the actions, the loop with its condition, and \<open>sip_message_parser_execute\<close>.  The arrays
  of the machine are a parameter \<open>T\<close>; the generated ones are \<open>sip_machine\<close> of \<open>Sip_Machine\<close>.  A
  failing \<open>assert\<close>, a read outside a buffer or an array and a callback that does not return are
  \<open>None\<close>.
\<close>

subsection \<open>The struct\<close>

record sip_message_parser =
  s_cs :: int
  nread :: nat
  error_start :: "string option"
  error_len :: nat
  error_pos :: int
  mark :: nat
  hdr_field_start :: nat
  hdr_field_len :: nat
  hdr_value_start :: nat
  hdr_value_len :: nat
  hdr_field_name :: header_field
  uri_start :: nat
  uri_param_key_start :: nat
  uri_param_key_len :: nat
  uri_param_value_start :: nat
  uri_param_value_len :: nat
  header_param_key_start :: nat
  header_param_key_len :: nat
  header_param_value_start :: nat
  header_param_value_len :: nat
  the_method :: "sip_method option"
  method_set :: bool
  num_via :: nat
  num_from :: nat
  num_to :: nat
  num_call_id :: nat
  num_cseq :: nat
  num_max_forwards :: nat
  num_content_length :: nat
  num_contact :: nat
  contact_is_valid :: bool
  route_found :: bool
  do_uri :: bool
  the_uri_owner :: "uri_owner option"
  the_uri_scheme :: "sip_uri_scheme option"
  uri_display_name_quoted :: bool
  parsed :: rval
  ruby_sip_parser :: rval

definition sip_message_parser_init :: "sip_message_parser \<Rightarrow> sip_message_parser" where
  "sip_message_parser_init pr = pr
     \<lparr>s_cs := 1, nread := 0, error_start := None, error_len := 0, error_pos := 0, mark := 0,
      hdr_field_start := 0, hdr_field_len := 0, hdr_value_start := 0, hdr_value_len := 0,
      hdr_field_name := header_field_any, uri_start := 0, uri_param_key_start := 0,
      uri_param_value_start := 0, header_param_key_start := 0, header_param_value_start := 0,
      the_method := None, method_set := False, num_via := 0, num_from := 0, num_to := 0,
      num_call_id := 0, num_cseq := 0, num_max_forwards := 0, num_content_length := 0,
      num_contact := 0, contact_is_valid := False, route_found := False, do_uri := False,
      the_uri_owner := None, the_uri_scheme := None, uri_display_name_quoted := False,
      parsed := nil\<rparr>"

subsection \<open>The calls\<close>

text \<open>The members of \<open>struct_message\<close> with the arguments \<open>at\<close> and \<open>length\<close>, and without any.\<close>

datatype (plugins only: code size) msg_element =
    Sip_version | Status_code | Reason_phrase | Via_sent_by_host | Via_sent_by_port | Via_branch
  | Via_branch_rfc3261 | Via_received | Call_id | Cseq_number | Max_forwards | Content_length
  | From_tag | To_tag | Contact_params

datatype msg_flag = Via_has_rport | Via_has_alias | Contact_has_reg_id

datatype (plugins only: code size) sip_call =
    Data_type sip_data_type
  | Init_component sip_component
  | Header string nat string nat header_field
  | Method string nat "sip_method option"
  | Element msg_element string nat
  | Flag msg_flag
  | Header_core_value header_field string nat
  | Header_param header_field string nat string nat
  | Option_tag header_field string nat
  | Uri_scheme "uri_owner option" string nat "sip_uri_scheme option"
  | Uri_full "uri_owner option" string nat
  | Uri_user "uri_owner option" string nat "sip_uri_scheme option"
  | Uri_host "uri_owner option" string nat host_type
  | Uri_port "uri_owner option" string nat
  | Uri_param "uri_owner option" string nat string nat
  | Uri_known_param "uri_owner option" uri_param_name string nat "sip_transport option"
  | Uri_has_param "uri_owner option" uri_param_name
  | Uri_headers "uri_owner option" string nat
  | Uri_display_name "uri_owner option" string nat

primrec msg_element_fun :: "msg_element \<Rightarrow> rval \<Rightarrow> string \<Rightarrow> nat \<Rightarrow> heap \<Rightarrow> heap option" where
  "msg_element_fun Sip_version = msg_sip_version"
| "msg_element_fun Status_code = msg_status_code"
| "msg_element_fun Reason_phrase = msg_reason_phrase"
| "msg_element_fun Via_sent_by_host = msg_via_sent_by_host"
| "msg_element_fun Via_sent_by_port = msg_via_sent_by_port"
| "msg_element_fun Via_branch = msg_via_branch"
| "msg_element_fun Via_branch_rfc3261 = msg_via_branch_rfc3261"
| "msg_element_fun Via_received = msg_via_received"
| "msg_element_fun Call_id = msg_call_id"
| "msg_element_fun Cseq_number = msg_cseq_number"
| "msg_element_fun Max_forwards = msg_max_forwards"
| "msg_element_fun Content_length = msg_content_length"
| "msg_element_fun From_tag = msg_from_tag"
| "msg_element_fun To_tag = msg_to_tag"
| "msg_element_fun Contact_params = msg_contact_params"

primrec msg_flag_fun :: "msg_flag \<Rightarrow> rval \<Rightarrow> heap \<Rightarrow> heap option" where
  "msg_flag_fun Via_has_rport = msg_via_has_rport"
| "msg_flag_fun Via_has_alias = msg_via_has_alias"
| "msg_flag_fun Contact_has_reg_id = msg_contact_has_reg_id"

text \<open>
  The function pointers as \<open>SipMessageParser_alloc\<close> sets them.  All but \<open>data_type\<close> leave
  \<open>parsed\<close> as it is.
\<close>

primrec sip_dispatch ::
  "pton \<Rightarrow> ntop \<Rightarrow> rval \<Rightarrow> rval \<Rightarrow> sip_call \<Rightarrow> heap \<Rightarrow> (heap \<times> rval) option" where
  "sip_dispatch pton ntop self v (Data_type t) h = data_type self t h"
| "sip_dispatch pton ntop self v (Init_component c) h = map_option (\<lambda>h. (h, v)) (init_component v c h)"
| "sip_dispatch pton ntop self v (Header f m w n hf) h = map_option (\<lambda>h. (h, v)) (sip_header v f m w n hf h)"
| "sip_dispatch pton ntop self v (Method at n m) h = map_option (\<lambda>h. (h, v)) (msg_method v at n m h)"
| "sip_dispatch pton ntop self v (Element e at n) h = map_option (\<lambda>h. (h, v)) (msg_element_fun e v at n h)"
| "sip_dispatch pton ntop self v (Flag f) h = map_option (\<lambda>h. (h, v)) (msg_flag_fun f v h)"
| "sip_dispatch pton ntop self v (Header_core_value hf at n) h =
     map_option (\<lambda>h. (h, v)) (header_core_value v hf at n h)"
| "sip_dispatch pton ntop self v (Header_param hf k kn w wn) h =
     map_option (\<lambda>h. (h, v)) (header_param v hf k kn w wn h)"
| "sip_dispatch pton ntop self v (Option_tag hf at n) h = map_option (\<lambda>h. (h, v)) (option_tag v hf at n h)"
| "sip_dispatch pton ntop self v (Uri_scheme own at n s) h = map_option (\<lambda>h. (h, v)) (uri_scheme v own at n s h)"
| "sip_dispatch pton ntop self v (Uri_full own at n) h = map_option (\<lambda>h. (h, v)) (uri_full v own at n h)"
| "sip_dispatch pton ntop self v (Uri_user own at n s) h = map_option (\<lambda>h. (h, v)) (uri_user v own at n s h)"
| "sip_dispatch pton ntop self v (Uri_host own at n t) h =
     map_option (\<lambda>h. (h, v)) (uri_host pton ntop v own at n t h)"
| "sip_dispatch pton ntop self v (Uri_port own at n) h = map_option (\<lambda>h. (h, v)) (uri_port v own at n h)"
| "sip_dispatch pton ntop self v (Uri_param own k kn w wn) h =
     map_option (\<lambda>h. (h, v)) (uri_param v own k kn w wn h)"
| "sip_dispatch pton ntop self v (Uri_known_param own p at n t) h =
     map_option (\<lambda>h. (h, v)) (uri_known_param v own p at n t h)"
| "sip_dispatch pton ntop self v (Uri_has_param own p) h = map_option (\<lambda>h. (h, v)) (uri_has_param v own p h)"
| "sip_dispatch pton ntop self v (Uri_headers own at n) h = map_option (\<lambda>h. (h, v)) (uri_headers v own at n h)"
| "sip_dispatch pton ntop self v (Uri_display_name own at n) h =
     map_option (\<lambda>h. (h, v)) (uri_display_name v own at n h)"

subsection \<open>The actions\<close>

text \<open>
  The actions of sip_message_parser.rl, those that differ in a value taken together; then the
  \<open>switch\<close> of sip_message_parser.c, which numbers them from 0 on.
\<close>

datatype (plugins only: code size) sip_action =
    A_data_type sip_data_type
  | A_mark
  | A_start_hdr_field
  | A_write_hdr_field
  | A_start_hdr_value
  | A_store_hdr_value
  | A_write_hdr_value
  | A_method_is sip_method
  | A_method
  | A_element msg_element
  | A_start_header_param_key
  | A_header_param_key_len
  | A_start_header_param_value
  | A_header_param_value_len
  | A_init_via
  | A_new_via
  | A_via_element msg_element
  | A_via_flag msg_flag
  | A_header_via_core
  | A_via_param
  | A_new_call_id
  | A_call_id
  | A_new_cseq
  | A_cseq_number
  | A_new_max_forwards
  | A_max_forwards
  | A_new_content_length
  | A_content_length
  | A_uri_is sip_uri_scheme
  | A_uri_scheme
  | A_uri_user
  | A_uri_host host_type
  | A_uri_port
  | A_start_uri_param_key
  | A_uri_param_key_len
  | A_start_uri_param_value
  | A_uri_param_value_len
  | A_write_uri_param
  | A_uri_headers
  | A_uri_known_param uri_param_name "sip_transport option"
  | A_uri_has_param uri_param_name
  | A_uri_display_name
  | A_uri_display_name_quoted
  | A_start_uri
  | A_write_uri
  | A_init_ruri
  | A_do_request_uri
  | A_init_from
  | A_new_from
  | A_do_from_uri
  | A_init_to
  | A_new_to
  | A_do_to_uri
  | A_init_route
  | A_init_route_uri
  | A_do_route_uri
  | A_init_contact
  | A_new_contact
  | A_do_contact_uri
  | A_contact_params
  | A_contact_has_reg_id
  | A_contact_is_valid bool
  | A_option_tag header_field
  | A_done

definition sip_switch :: "sip_action list" where
  "sip_switch =
     [A_data_type sip_request, A_data_type sip_response, A_data_type outbound_keepalive, A_mark,
      A_start_hdr_field, A_write_hdr_field, A_start_hdr_value, A_store_hdr_value, A_write_hdr_value,
      A_method_is method_INVITE, A_method_is method_ACK, A_method_is method_CANCEL,
      A_method_is method_PRACK, A_method_is method_BYE, A_method_is method_REFER,
      A_method_is method_INFO, A_method_is method_UPDATE, A_method_is method_OPTIONS,
      A_method_is method_REGISTER, A_method_is method_MESSAGE, A_method_is method_SUBSCRIBE,
      A_method_is method_NOTIFY, A_method_is method_PUBLISH, A_method_is method_PULL,
      A_method_is method_PUSH, A_method_is method_STORE, A_method_is method_unknown, A_method,
      A_element Sip_version, A_element Status_code, A_element Reason_phrase,
      A_start_header_param_key, A_header_param_key_len, A_start_header_param_value,
      A_header_param_value_len, A_init_via, A_new_via, A_via_element Via_sent_by_host,
      A_via_element Via_sent_by_port, A_via_element Via_branch, A_via_element Via_branch_rfc3261,
      A_via_element Via_received, A_via_flag Via_has_rport, A_via_flag Via_has_alias,
      A_header_via_core, A_via_param, A_new_call_id, A_call_id, A_new_cseq, A_cseq_number,
      A_new_max_forwards, A_max_forwards, A_new_content_length, A_content_length,
      A_uri_is uri_scheme_sip, A_uri_is uri_scheme_sips, A_uri_is uri_scheme_tel,
      A_uri_is uri_scheme_unknown, A_uri_scheme, A_uri_user, A_uri_host host_type_domain,
      A_uri_host host_type_ipv4, A_uri_host host_type_ipv6, A_uri_port, A_start_uri_param_key,
      A_uri_param_key_len, A_start_uri_param_value, A_uri_param_value_len, A_write_uri_param,
      A_uri_headers, A_uri_known_param uri_tel_phone_context None,
      A_uri_known_param uri_param_transport (Some transport_udp),
      A_uri_known_param uri_param_transport (Some transport_tcp),
      A_uri_known_param uri_param_transport (Some transport_tls),
      A_uri_known_param uri_param_transport (Some transport_sctp),
      A_uri_known_param uri_param_transport (Some transport_ws),
      A_uri_known_param uri_param_transport (Some transport_wss),
      A_uri_known_param uri_param_transport (Some transport_unknown),
      A_uri_has_param uri_param_lr, A_uri_has_param uri_param_ob,
      A_uri_known_param uri_param_ovid None, A_uri_display_name, A_uri_display_name_quoted,
      A_start_uri, A_write_uri, A_init_ruri, A_do_request_uri, A_init_from, A_new_from,
      A_do_from_uri, A_init_to, A_new_to, A_do_to_uri, A_element From_tag, A_element To_tag,
      A_init_route, A_init_route_uri, A_do_route_uri, A_init_contact, A_new_contact,
      A_do_contact_uri, A_contact_params, A_contact_has_reg_id, A_contact_is_valid True,
      A_contact_is_valid False, A_option_tag header_field_require,
      A_option_tag header_field_proxy_require, A_option_tag header_field_supported, A_done]"

text \<open>
  What an action does at position \<open>p\<close>: the call it makes, if any, the struct afterwards, and
  whether it leaves the loop.
\<close>

type_synonym sip_effect = "sip_call option \<times> sip_message_parser \<times> bool"

definition set_to :: "sip_message_parser \<Rightarrow> sip_effect" where
  "set_to pr = (None, pr, False)"

definition calls :: "bool \<Rightarrow> sip_call \<Rightarrow> sip_message_parser \<Rightarrow> sip_effect" where
  "calls b c pr = (if b then Some c else None, pr, False)"

abbreviation marked :: "string \<Rightarrow> nat \<Rightarrow> sip_message_parser \<Rightarrow> (string \<Rightarrow> nat \<Rightarrow> 'c) \<Rightarrow> 'c" where
  "marked buffer p pr C \<equiv> C (drop (mark pr) buffer) (LEN (mark pr) p)"

primrec sip_do :: "string \<Rightarrow> nat \<Rightarrow> sip_action \<Rightarrow> sip_message_parser \<Rightarrow> sip_effect" where
  "sip_do buffer p (A_data_type t) pr = calls True (Data_type t) pr"
| "sip_do buffer p A_mark pr = set_to (pr\<lparr>mark := p\<rparr>)"
| "sip_do buffer p A_start_hdr_field pr = set_to (pr\<lparr>hdr_field_start := p\<rparr>)"
| "sip_do buffer p A_write_hdr_field pr = set_to
     (pr\<lparr>hdr_field_len := LEN (hdr_field_start pr) p, hdr_field_name := header_field_any\<rparr>)"
| "sip_do buffer p A_start_hdr_value pr = set_to (pr\<lparr>hdr_value_start := p\<rparr>)"
| "sip_do buffer p A_store_hdr_value pr = set_to (pr\<lparr>hdr_value_len := LEN (hdr_value_start pr) p\<rparr>)"
| "sip_do buffer p A_write_hdr_value pr = calls (hdr_value_start pr \<noteq> 0)
     (Header (drop (hdr_field_start pr) buffer) (hdr_field_len pr)
        (drop (hdr_value_start pr) buffer) (hdr_value_len pr) (hdr_field_name pr)) pr"
| "sip_do buffer p (A_method_is m) pr = set_to
     (if m = method_OPTIONS
      then if \<not> method_set pr then pr\<lparr>the_method := Some method_OPTIONS, method_set := True\<rparr> else pr
      else if the_method pr = None then pr\<lparr>the_method := Some m\<rparr> else pr)"
| "sip_do buffer p A_method pr = calls True (marked buffer p pr Method (the_method pr)) pr"
| "sip_do buffer p (A_element e) pr = calls True (marked buffer p pr (Element e)) pr"
| "sip_do buffer p A_start_header_param_key pr = set_to (pr\<lparr>header_param_key_start := p\<rparr>)"
| "sip_do buffer p A_header_param_key_len pr = set_to
     (pr\<lparr>header_param_key_len := LEN (header_param_key_start pr) p, header_param_value_len := 0\<rparr>)"
| "sip_do buffer p A_start_header_param_value pr = set_to (pr\<lparr>header_param_value_start := p\<rparr>)"
| "sip_do buffer p A_header_param_value_len pr = set_to
     (pr\<lparr>header_param_value_len := LEN (header_param_value_start pr) p\<rparr>)"
| "sip_do buffer p A_init_via pr = set_to (pr\<lparr>hdr_field_name := header_field_via\<rparr>)"
| "sip_do buffer p A_new_via pr = set_to (pr\<lparr>num_via := num_via pr + 1\<rparr>)"
| "sip_do buffer p (A_via_element e) pr = calls (num_via pr = 1) (marked buffer p pr (Element e)) pr"
| "sip_do buffer p (A_via_flag f) pr = calls (num_via pr = 1) (Flag f) pr"
| "sip_do buffer p A_header_via_core pr = calls (num_via pr = 1)
     (Header_core_value header_field_via (drop (hdr_value_start pr) buffer) (LEN (hdr_value_start pr) p)) pr"
| "sip_do buffer p A_via_param pr = calls (num_via pr = 1)
     (Header_param header_field_via (drop (header_param_key_start pr) buffer) (header_param_key_len pr)
        (drop (header_param_value_start pr) buffer) (header_param_value_len pr)) pr"
| "sip_do buffer p A_new_call_id pr = set_to (pr\<lparr>num_call_id := num_call_id pr + 1\<rparr>)"
| "sip_do buffer p A_call_id pr = calls (num_call_id pr = 1) (marked buffer p pr (Element Call_id)) pr"
| "sip_do buffer p A_new_cseq pr = set_to (pr\<lparr>num_cseq := num_cseq pr + 1\<rparr>)"
| "sip_do buffer p A_cseq_number pr = calls (num_cseq pr = 1) (marked buffer p pr (Element Cseq_number)) pr"
| "sip_do buffer p A_new_max_forwards pr = set_to (pr\<lparr>num_max_forwards := num_max_forwards pr + 1\<rparr>)"
| "sip_do buffer p A_max_forwards pr = calls (num_max_forwards pr = 1)
     (marked buffer p pr (Element Max_forwards)) pr"
| "sip_do buffer p A_new_content_length pr = set_to (pr\<lparr>num_content_length := num_content_length pr + 1\<rparr>)"
| "sip_do buffer p A_content_length pr = calls (num_content_length pr = 1)
     (marked buffer p pr (Element Content_length)) pr"
| "sip_do buffer p (A_uri_is s) pr = set_to (if do_uri pr then pr\<lparr>the_uri_scheme := Some s\<rparr> else pr)"
| "sip_do buffer p A_uri_scheme pr = calls (do_uri pr)
     (marked buffer p pr (Uri_scheme (the_uri_owner pr)) (the_uri_scheme pr)) pr"
| "sip_do buffer p A_uri_user pr = calls (do_uri pr)
     (marked buffer p pr (Uri_user (the_uri_owner pr)) (the_uri_scheme pr)) pr"
| "sip_do buffer p (A_uri_host t) pr = calls (do_uri pr)
     (marked buffer p pr (Uri_host (the_uri_owner pr)) t) pr"
| "sip_do buffer p A_uri_port pr = calls (do_uri pr) (marked buffer p pr (Uri_port (the_uri_owner pr))) pr"
| "sip_do buffer p A_start_uri_param_key pr = set_to
     (if do_uri pr then pr\<lparr>uri_param_key_start := p\<rparr> else pr)"
| "sip_do buffer p A_uri_param_key_len pr = set_to
     (if do_uri pr
      then pr\<lparr>uri_param_key_len := LEN (uri_param_key_start pr) p, uri_param_value_len := 0\<rparr> else pr)"
| "sip_do buffer p A_start_uri_param_value pr = set_to
     (if do_uri pr then pr\<lparr>uri_param_value_start := p\<rparr> else pr)"
| "sip_do buffer p A_uri_param_value_len pr = set_to
     (if do_uri pr then pr\<lparr>uri_param_value_len := LEN (uri_param_value_start pr) p\<rparr> else pr)"
| "sip_do buffer p A_write_uri_param pr = calls (do_uri pr)
     (Uri_param (the_uri_owner pr) (drop (uri_param_key_start pr) buffer) (uri_param_key_len pr)
        (drop (uri_param_value_start pr) buffer) (uri_param_value_len pr)) pr"
| "sip_do buffer p A_uri_headers pr = calls (do_uri pr)
     (marked buffer p pr (Uri_headers (the_uri_owner pr))) pr"
| "sip_do buffer p (A_uri_known_param k t) pr = calls (do_uri pr)
     (marked buffer p pr (Uri_known_param (the_uri_owner pr) k) t) pr"
| "sip_do buffer p (A_uri_has_param k) pr = calls (do_uri pr) (Uri_has_param (the_uri_owner pr) k) pr"
| "sip_do buffer p A_uri_display_name pr = calls (do_uri pr)
     (if \<not> uri_display_name_quoted pr then marked buffer p pr (Uri_display_name (the_uri_owner pr))
      else Uri_display_name (the_uri_owner pr) (drop (mark pr + 1) buffer)
             (nat ((int (LEN (mark pr) p) - 2) mod 2 ^ 64))) pr"
| "sip_do buffer p A_uri_display_name_quoted pr = set_to (pr\<lparr>uri_display_name_quoted := True\<rparr>)"
| "sip_do buffer p A_start_uri pr = set_to (if do_uri pr then pr\<lparr>uri_start := p\<rparr> else pr)"
| "sip_do buffer p A_write_uri pr = calls (do_uri pr)
     (Uri_full (the_uri_owner pr) (drop (uri_start pr) buffer) (LEN (uri_start pr) p))
     (pr\<lparr>do_uri := False, the_uri_owner := None, the_uri_scheme := None, uri_display_name_quoted := False\<rparr>)"
| "sip_do buffer p A_init_ruri pr = calls True (Init_component component_ruri) pr"
| "sip_do buffer p A_do_request_uri pr = set_to
     (pr\<lparr>do_uri := True, the_uri_owner := Some uri_owner_ruri\<rparr>)"
| "sip_do buffer p A_init_from pr = calls True (Init_component component_from)
     (pr\<lparr>hdr_field_name := header_field_from\<rparr>)"
| "sip_do buffer p A_new_from pr = set_to (pr\<lparr>num_from := num_from pr + 1\<rparr>)"
| "sip_do buffer p A_do_from_uri pr = set_to
     (if num_from pr = 1 then pr\<lparr>do_uri := True, the_uri_owner := Some uri_owner_from\<rparr> else pr)"
| "sip_do buffer p A_init_to pr = calls True (Init_component component_to)
     (pr\<lparr>hdr_field_name := header_field_to\<rparr>)"
| "sip_do buffer p A_new_to pr = set_to (pr\<lparr>num_to := num_to pr + 1\<rparr>)"
| "sip_do buffer p A_do_to_uri pr = set_to
     (if num_to pr = 1 then pr\<lparr>do_uri := True, the_uri_owner := Some uri_owner_to\<rparr> else pr)"
| "sip_do buffer p A_init_route pr =
     (if \<not> route_found pr
      then calls True (Init_component component_route)
             (pr\<lparr>hdr_field_name := header_field_route, route_found := True\<rparr>)
      else set_to pr)"
| "sip_do buffer p A_init_route_uri pr = calls True (Init_component component_route_uri) pr"
| "sip_do buffer p A_do_route_uri pr = set_to
     (pr\<lparr>do_uri := True, the_uri_owner := Some uri_owner_route\<rparr>)"
| "sip_do buffer p A_init_contact pr = calls True (Init_component component_contact)
     (pr\<lparr>hdr_field_name := header_field_contact\<rparr>)"
| "sip_do buffer p A_new_contact pr = set_to (pr\<lparr>num_contact := num_contact pr + 1\<rparr>)"
| "sip_do buffer p A_do_contact_uri pr = set_to
     (if num_contact pr = 1 then pr\<lparr>do_uri := True, the_uri_owner := Some uri_owner_contact\<rparr> else pr)"
| "sip_do buffer p A_contact_params pr = calls (num_contact pr = 1)
     (marked buffer p pr (Element Contact_params)) pr"
| "sip_do buffer p A_contact_has_reg_id pr = calls (num_contact pr = 1) (Flag Contact_has_reg_id) pr"
| "sip_do buffer p (A_contact_is_valid b) pr = set_to (pr\<lparr>contact_is_valid := b\<rparr>)"
| "sip_do buffer p (A_option_tag hf) pr = calls True (marked buffer p pr (Option_tag hf)) pr"
| "sip_do buffer p A_done pr = (None, pr, True)"

text \<open>An action by its number; the \<open>switch\<close> has no default.\<close>

definition sip_act ::
  "pton \<Rightarrow> ntop \<Rightarrow> string \<Rightarrow> int \<Rightarrow> nat \<Rightarrow> sip_message_parser \<times> heap \<Rightarrow>
   ((sip_message_parser \<times> heap) \<times> bool) option" where
  "sip_act pton ntop buffer a p s =
     (case s of (pr, h) \<Rightarrow>
        if 0 \<le> a \<and> nat a < length sip_switch
        then
          (case sip_do buffer p (sip_switch ! nat a) pr of
             (None, pr', out) \<Rightarrow> Some ((pr', h), out)
           | (Some c, pr', out) \<Rightarrow>
               map_option (\<lambda>(h', v). ((pr'\<lparr>parsed := v\<rparr>, h'), out))
                 (sip_dispatch pton ntop (ruby_sip_parser pr) (parsed pr) c h))
        else Some (s, False))"

subsection \<open>The loop\<close>

text \<open>
  A state may have characters for which the condition \<open>is_method_set\<close> is asked; they are
  widened, to one code when it does not hold and to another when it does.
\<close>

type_synonym sip_tables = rgl_cond_tables

definition sip_widen :: "bool \<Rightarrow> int \<Rightarrow> int \<Rightarrow> int" where
  "sip_widen is_method_set space c =
     (if space = 0 then 128 + (c + 128) + (if is_method_set then 256 else 0) else c)"

definition sip_step ::
  "sip_tables \<Rightarrow> sip_message_parser \<times> heap \<Rightarrow> int \<Rightarrow> int \<Rightarrow> (int \<times> int list) option" where
  "sip_step T s cs c = cond_step T (sip_widen (the_method (fst s) \<noteq> None)) cs c"

definition sip_message_parser_has_error :: "sip_message_parser \<Rightarrow> bool" where
  "sip_message_parser_has_error pr \<longleftrightarrow> s_cs pr = 0"

definition sip_message_parser_is_finished :: "sip_message_parser \<Rightarrow> bool" where
  "sip_message_parser_is_finished pr \<longleftrightarrow> s_cs pr = 7687"

definition sip_message_parser_finish :: "sip_message_parser \<Rightarrow> int" where
  "sip_message_parser_finish pr =
     (if sip_message_parser_has_error pr then -1
      else if sip_message_parser_is_finished pr then 1 else 0)"

definition sip_message_parser_execute ::
  "sip_tables \<Rightarrow> pton \<Rightarrow> ntop \<Rightarrow> sip_message_parser \<Rightarrow> heap \<Rightarrow> string \<Rightarrow> nat \<Rightarrow> nat \<Rightarrow>
   (sip_message_parser \<times> heap) option" where
  "sip_message_parser_execute T pton ntop pr h buffer len off =
     (if \<not> off \<le> len then None
      else if length buffer \<le> len \<or> buffer ! len \<noteq> CHR 0x00 then None
      else do {
        (cs', p, pr, h) \<leftarrow>
          t0_exec (sip_step T) (sip_act pton ntop buffer) (s_cs pr) off (take (len - off) (drop off buffer)) (pr, h);
        let pr = pr\<lparr>s_cs := cs', nread := nread pr + (p - off)\<rparr>;
        (if p \<le> len \<and> nread pr \<le> len \<and> mark pr < len \<and> hdr_field_start pr < len \<and>
            hdr_field_len pr \<le> len \<and> hdr_value_start pr < len \<and> hdr_value_len pr \<le> len
         then
           Some (if sip_message_parser_has_error pr
                 then pr\<lparr>error_start := Some buffer, error_len := len, error_pos := to_c_int (int p)\<rparr>
                 else pr, h)
         else None)
      })"

end
