(* ===== verification/Sip_Class.thy ===== *)
theory Sip_Class
  imports Sip_Parser Parser_Error
begin

text \<open>
  The methods of the Ruby class \<open>OverSIP::SIP::MessageParser\<close>, the second half of
  ext/sip_parser/sip_parser_ruby.c.
\<close>

datatype sip_raise = Sip_TypeError | Sip_RangeError | Sip_ParserError

datatype sip_ending =
    Sip_raises sip_raise
  | Sip_aborts
  | Sip_returns ruby_value sip_message_parser heap

definition SipMessageParser_alloc :: "sip_message_parser \<Rightarrow> sip_message_parser" where
  "SipMessageParser_alloc pr = sip_message_parser_init pr"

definition SipMessageParser_init :: "rval \<Rightarrow> sip_message_parser \<Rightarrow> sip_message_parser" where
  "SipMessageParser_init self pr = (sip_message_parser_init pr)\<lparr>ruby_sip_parser := self\<rparr>"

definition SipMessageParser_reset :: "sip_message_parser \<Rightarrow> sip_message_parser \<times> ruby_value" where
  "SipMessageParser_reset pr = (sip_message_parser_init pr, Qnil)"

definition SipMessageParser_finish :: "sip_message_parser \<Rightarrow> ruby_value" where
  "SipMessageParser_finish pr = (if sip_message_parser_is_finished pr then Qtrue else Qfalse)"

definition SipMessageParser_execute ::
  "sip_tables \<Rightarrow> pton \<Rightarrow> ntop \<Rightarrow> sip_message_parser \<Rightarrow> ruby_value \<Rightarrow> ruby_value \<Rightarrow> heap \<Rightarrow> sip_ending" where
  "SipMessageParser_execute T pton ntop pr buffer start h =
     (case (buffer, start) of
        (Str s, Fix from) \<Rightarrow>
          if \<not> (- (2 ^ 31) \<le> from \<and> from < 2 ^ 31) then Sip_raises Sip_RangeError
          else if int (length s) \<le> from then Sip_raises Sip_ParserError
          else if from < 0 then Sip_aborts
          else
            (case sip_message_parser_execute T pton ntop pr h (s @ [CHR 0x00]) (length s) (nat from) of
               None \<Rightarrow> Sip_aborts
             | Some (pr', h') \<Rightarrow>
                 Sip_returns (if sip_message_parser_has_error pr' then Qfalse
                              else Fix (int (nread pr'))) pr' h')
      | _ \<Rightarrow> Sip_raises Sip_TypeError)"

definition SipMessageParser_has_error :: "sip_message_parser \<Rightarrow> ruby_value" where
  "SipMessageParser_has_error pr = (if sip_message_parser_has_error pr then Qtrue else Qfalse)"

definition SipMessageParser_error :: "sip_message_parser \<Rightarrow> ruby_value option" where
  "SipMessageParser_error pr =
     (if sip_message_parser_has_error pr then
        (case error_start pr of
           None \<Rightarrow> None
         | Some text \<Rightarrow> map_option Str (parsing_error_string text (error_len pr) (error_pos pr)))
      else Some Qnil)"

definition SipMessageParser_is_finished :: "sip_message_parser \<Rightarrow> ruby_value" where
  "SipMessageParser_is_finished pr = (if sip_message_parser_is_finished pr then Qtrue else Qfalse)"

definition SipMessageParser_parsed :: "sip_message_parser \<Rightarrow> rval" where
  "SipMessageParser_parsed pr = parsed pr"

definition SipMessageParser_nread :: "sip_message_parser \<Rightarrow> ruby_value" where
  "SipMessageParser_nread pr = Fix (int (nread pr))"

definition SipMessageParser_has_duplicated_core_header ::
  "sip_message_parser \<Rightarrow> heap \<Rightarrow> (ruby_value \<times> heap) option" where
  "SipMessageParser_has_duplicated_core_header pr h = do {
     h \<leftarrow> rb_ivar_set (parsed pr) ''@num_vias'' (Imm (Fix (int (num_via pr)))) h;
     Some
       (if num_from pr > 1 then Str ''From''
        else if num_to pr > 1 then Str ''To''
        else if num_cseq pr > 1 then Str ''CSeq''
        else if num_call_id pr > 1 then Str ''Call-ID''
        else if num_max_forwards pr > 1 then Str ''Max-Forwards''
        else if num_content_length pr > 1 then Str ''Content-Length''
        else Qfalse, h)
   }"

definition SipMessageParser_has_missing_core_header :: "sip_message_parser \<Rightarrow> ruby_value" where
  "SipMessageParser_has_missing_core_header pr =
     (if num_via pr = 0 then Str ''Via''
      else if num_from pr = 0 then Str ''From''
      else if num_to pr = 0 then Str ''To''
      else if num_cseq pr = 0 then Str ''CSeq''
      else if num_call_id pr = 0 then Str ''Call-ID''
      else Qfalse)"

definition SipMessageParser_post_parsing :: "sip_message_parser \<Rightarrow> heap \<Rightarrow> heap option" where
  "SipMessageParser_post_parsing pr h =
     (if \<not> (contact_is_valid pr \<and> num_contact pr = 1)
      then rb_ivar_set (parsed pr) ''@contact'' nil h else Some h)"

fun SipMessageParser_Class_headerize :: "ruby_value \<Rightarrow> outcome" where
  "SipMessageParser_Class_headerize (Str s) = Inr (headerize s)"
| "SipMessageParser_Class_headerize v = Inl TypeError"

end
