(* ===== verification/Sip_Run.thy ===== *)
theory Sip_Run
  imports Sip_Class
begin

text \<open>
  What the SIP message parser does while it runs: the actions it goes through and the call each
  of them makes, whatever the arrays of the machine are, over as many calls of \<open>execute\<close> as the
  message takes to come.  A property of the actions so far and the struct that every action keeps
  holds at every point of every run.
\<close>

subsection \<open>The path of a run\<close>

text \<open>The actions of a run with their positions and the data they start from.\<close>

fun t0_acts_path :: "(int \<Rightarrow> nat \<Rightarrow> 'd \<Rightarrow> ('d \<times> bool) option) \<Rightarrow> nat \<Rightarrow> int list \<Rightarrow> 'd \<Rightarrow> (int \<times> nat \<times> 'd) list"
  where
  "t0_acts_path act p [] d = []"
| "t0_acts_path act p (a # as) d =
     (case act a p d of
        None \<Rightarrow> [(a, p, d)]
      | Some (d', out) \<Rightarrow> (a, p, d) # (if out then [] else t0_acts_path act p as d'))"

fun t0_path ::
  "('d \<Rightarrow> int \<Rightarrow> int \<Rightarrow> (int \<times> int list) option) \<Rightarrow> (int \<Rightarrow> nat \<Rightarrow> 'd \<Rightarrow> ('d \<times> bool) option) \<Rightarrow>
   int \<Rightarrow> nat \<Rightarrow> string \<Rightarrow> 'd \<Rightarrow> (int \<times> nat \<times> 'd) list" where
  "t0_path step act cs p [] d = []"
| "t0_path step act cs p (c # w) d =
     (if cs = 0 then []
      else
        (case step d cs (schar c) of
           None \<Rightarrow> []
         | Some (cs', as) \<Rightarrow>
             t0_acts_path act p as d @
             (case t0_acts act p as d of
                None \<Rightarrow> []
              | Some (d', out) \<Rightarrow>
                  if out \<or> cs' = 0 then [] else t0_path step act cs' (p + 1) w d')))"

text \<open>What an entry of the path is: an action and the call it makes.\<close>

fun sip_entry :: "string \<Rightarrow> int \<times> nat \<times> sip_message_parser \<times> heap \<Rightarrow> (sip_action \<times> sip_call option) list" where
  "sip_entry buffer (a, p, pr, h) =
     (if 0 \<le> a \<and> nat a < length sip_switch
      then [(sip_switch ! nat a, fst (sip_do buffer p (sip_switch ! nat a) pr))] else [])"

definition sip_log ::
  "sip_tables \<Rightarrow> pton \<Rightarrow> ntop \<Rightarrow> sip_message_parser \<Rightarrow> heap \<Rightarrow> string \<Rightarrow> nat \<Rightarrow> nat \<Rightarrow>
   (sip_action \<times> sip_call option) list" where
  "sip_log T pton ntop pr h buffer len off =
     concat (map (sip_entry buffer)
       (t0_path (sip_step T) (sip_act pton ntop buffer) (s_cs pr) off
          (take (len - off) (drop off buffer)) (pr, h)))"

text \<open>
  A message that comes in pieces: \<open>execute\<close> on all the bytes there are, from where it stopped,
  until the message is finished or in error.
\<close>

fun sip_feed ::
  "sip_tables \<Rightarrow> pton \<Rightarrow> ntop \<Rightarrow> string \<Rightarrow> string list \<Rightarrow> sip_message_parser \<Rightarrow> heap \<Rightarrow>
   (sip_message_parser \<times> heap \<times> (sip_action \<times> sip_call option) list) option" where
  "sip_feed T pton ntop seen [] pr h = Some (pr, h, [])"
| "sip_feed T pton ntop seen (c # cs) pr h =
     (if sip_message_parser_has_error pr \<or> sip_message_parser_is_finished pr then Some (pr, h, [])
      else
        (case sip_message_parser_execute T pton ntop pr h (seen @ c @ [CHR 0x00]) (length (seen @ c)) (nread pr) of
           None \<Rightarrow> None
         | Some (pr', h') \<Rightarrow>
             map_option (\<lambda>(pr'', h'', L).
                 (pr'', h'', sip_log T pton ntop pr h (seen @ c @ [CHR 0x00]) (length (seen @ c)) (nread pr) @ L))
               (sip_feed T pton ntop (seen @ c) cs pr' h')))"

subsection \<open>What holds all the time\<close>

text \<open>
  A relation of what happened so far, the struct and the store that every action keeps, and that
  does not speak of what \<open>execute\<close> itself writes, holds after every run.
\<close>

locale sip_run =
  fixes pton :: pton and ntop :: ntop
    and J :: "(sip_action \<times> sip_call option) list \<Rightarrow> sip_message_parser \<Rightarrow> heap \<Rightarrow> bool"
  assumes act: "J L pr h \<Longrightarrow> sip_act pton ntop buffer a p (pr, h) = Some ((pr', h'), out) \<Longrightarrow>
      J (L @ sip_entry buffer (a, p, pr, h)) pr' h'"
    and frame: "J L pr h \<Longrightarrow> J L (pr\<lparr>s_cs := i, nread := n\<rparr>) h"
      "J L pr h \<Longrightarrow> J L (pr\<lparr>error_start := e, error_len := len, error_pos := i\<rparr>) h"
begin

lemma acts:
  assumes "J L pr h" and "t0_acts (sip_act pton ntop buffer) p acts (pr, h) = Some ((pr', h'), out)"
  shows "J (L @ concat (map (sip_entry buffer) (t0_acts_path (sip_act pton ntop buffer) p acts (pr, h)))) pr' h'"
  using assms
proof (induction acts arbitrary: L pr h)
  case (Cons a acts)
  obtain pr1 h1 out1 where a: "sip_act pton ntop buffer a p (pr, h) = Some ((pr1, h1), out1)"
    using Cons.prems(2) by (auto split: option.splits)
  note s = act [OF Cons.prems(1) a]
  show ?case
  proof (cases out1)
    case False
    then have r: "t0_acts (sip_act pton ntop buffer) p acts (pr1, h1) = Some ((pr', h'), out)"
      using Cons.prems(2) a by simp
    show ?thesis using Cons.IH [OF s r] a False by (simp add: append_assoc)
  qed (use Cons.prems(2) a s in simp)
qed simp

lemma exec:
  assumes "J L pr h"
    and "t0_exec (sip_step T) (sip_act pton ntop buffer) cs p w (pr, h) = Some (cs', q, pr', h')"
  shows "J (L @ concat (map (sip_entry buffer) (t0_path (sip_step T) (sip_act pton ntop buffer) cs p w (pr, h)))) pr' h'"
  using assms
proof (induction w arbitrary: L cs p pr h)
  case (Cons c w)
  show ?case
  proof (cases "cs = 0")
    case False
    obtain cs1 acts where st: "sip_step T (pr, h) cs (schar c) = Some (cs1, acts)"
      using Cons.prems(2) False by (auto split: option.splits)
    obtain pr1 h1 out where ac: "t0_acts (sip_act pton ntop buffer) p acts (pr, h) = Some ((pr1, h1), out)"
      using Cons.prems(2) False st by (auto split: option.splits)
    note s = acts [OF Cons.prems(1) ac]
    show ?thesis
    proof (cases "out \<or> cs1 = 0")
      case True
      then show ?thesis using Cons.prems(2) False st ac s by (auto split: if_splits)
    next
      case go: False
      then have r: "t0_exec (sip_step T) (sip_act pton ntop buffer) cs1 (p + 1) w (pr1, h1) = Some (cs', q, pr', h')"
        using Cons.prems(2) False st ac by simp
      show ?thesis using Cons.IH [OF s r] False st ac go by (simp add: append_assoc)
    qed
  qed (use Cons.prems in simp)
qed simp

lemma execute:
  assumes i: "J L pr h" and ex: "sip_message_parser_execute T pton ntop pr h buffer len off = Some (pr', h')"
  shows "J (L @ sip_log T pton ntop pr h buffer len off) pr' h'"
proof -
  obtain cs1 q pr1 h1 where r: "t0_exec (sip_step T) (sip_act pton ntop buffer) (s_cs pr) off
        (take (len - off) (drop off buffer)) (pr, h) = Some (cs1, q, pr1, h1)"
    using ex by (auto simp: sip_message_parser_execute_def bind_eq_Some_conv split: if_splits)
  note s = exec [OF i r, folded sip_log_def]
  have "h' = h1" "\<exists>n e l i'. pr' = pr1\<lparr>s_cs := cs1, nread := n\<rparr> \<or>
      pr' = pr1\<lparr>s_cs := cs1, nread := n\<rparr>\<lparr>error_start := e, error_len := l, error_pos := i'\<rparr>"
    using ex r by (auto simp: sip_message_parser_execute_def Let_def split: if_splits)
  then show ?thesis using s frame by metis
qed

lemma feed:
  assumes "J L pr h" and "sip_feed T pton ntop seen cs pr h = Some (pr', h', L')"
  shows "J (L @ L') pr' h'"
  using assms
proof (induction cs arbitrary: L seen pr h L')
  case (Cons c cs)
  show ?case
  proof (cases "sip_message_parser_has_error pr \<or> sip_message_parser_is_finished pr")
    case False
    let ?b = "seen @ c @ [CHR 0x00]" and ?n = "length (seen @ c)"
    obtain pr1 h1 L1 where ex: "sip_message_parser_execute T pton ntop pr h ?b ?n (nread pr) = Some (pr1, h1)"
      and rest: "sip_feed T pton ntop (seen @ c) cs pr1 h1 = Some (pr', h', L1)"
      and L: "L' = sip_log T pton ntop pr h ?b ?n (nread pr) @ L1"
      using Cons.prems(2) False by (auto split: option.splits)
    show ?thesis using Cons.IH [OF execute [OF Cons.prems(1) ex] rest] unfolding L
      by (simp add: append_assoc)
  qed (use Cons.prems in simp)
qed simp

end

subsection \<open>The calls, one after another\<close>

text \<open>The calls of a run, and what they do to the store and to \<open>parsed\<close> without the parser.\<close>

fun calls_of :: "(sip_action \<times> sip_call option) list \<Rightarrow> sip_call list" where
  "calls_of [] = []"
| "calls_of ((a, None) # L) = calls_of L"
| "calls_of ((a, Some c) # L) = c # calls_of L"

lemma calls_of_append: "calls_of (K @ L) = calls_of K @ calls_of L"
  by (induction K rule: calls_of.induct) simp_all

fun replay :: "pton \<Rightarrow> ntop \<Rightarrow> rval \<Rightarrow> sip_call list \<Rightarrow> heap \<times> rval \<Rightarrow> (heap \<times> rval) option" where
  "replay pton ntop self [] s = Some s"
| "replay pton ntop self (c # cs) (h, v) =
     (case sip_dispatch pton ntop self v c h of
        None \<Rightarrow> None
      | Some s \<Rightarrow> replay pton ntop self cs s)"

lemma replay_calls_append:
  "replay pton ntop self (cs @ ds) s =
   (case replay pton ntop self cs s of None \<Rightarrow> None | Some s' \<Rightarrow> replay pton ntop self ds s')"
  by (induction cs arbitrary: s) (auto split: option.split)

lemma sip_do_parsed:
  assumes "sip_do buffer p a pr = (c, pr', out)"
  shows "parsed pr' = parsed pr" "ruby_sip_parser pr' = ruby_sip_parser pr"
  using assms by (cases a; auto simp: set_to_def calls_def split: if_splits)+

definition replayed ::
  "pton \<Rightarrow> ntop \<Rightarrow> rval \<Rightarrow> heap \<times> rval \<Rightarrow> (sip_action \<times> sip_call option) list \<Rightarrow> sip_message_parser \<Rightarrow> heap \<Rightarrow> bool"
  where
  "replayed pton ntop self s L pr h \<longleftrightarrow>
     ruby_sip_parser pr = self \<and> replay pton ntop self (calls_of L) s = Some (h, parsed pr)"

interpretation replay: sip_run pton ntop "replayed pton ntop self s" for pton ntop self s
proof
  fix L pr h buffer a p pr' h' out
  assume r: "replayed pton ntop self s L pr h"
    and act: "sip_act pton ntop buffer a p (pr, h) = Some ((pr', h'), out)"
  show "replayed pton ntop self s (L @ sip_entry buffer (a, p, pr, h)) pr' h'"
  proof (cases "0 \<le> a \<and> nat a < length sip_switch")
    case True
    obtain c pr1 out1 where d: "sip_do buffer p (sip_switch ! nat a) pr = (c, pr1, out1)"
      by (cases "sip_do buffer p (sip_switch ! nat a) pr")
    show ?thesis using r act True d sip_do_parsed [OF d]
      by (cases c) (auto simp: replayed_def calls_of_append replay_calls_append sip_act_def)
  next
    case False
    then show ?thesis using r act by (auto simp: sip_act_def)
  qed
qed (simp_all add: replayed_def)

subsection \<open>Invariants of the struct\<close>

text \<open>
  What an observer of the parser knows: a relation of the actions so far and the struct, true of a
  new parser and kept by every action.  It holds where every call of a run is made.
\<close>

locale sip_observer =
  fixes I :: "sip_action list \<Rightarrow> sip_message_parser \<Rightarrow> bool"
  assumes init: "I [] (sip_message_parser_init pr)"
    and step: "I as pr \<Longrightarrow> sip_do buffer p a pr = (c, pr', out) \<Longrightarrow> I (as @ [a]) pr'"
    and frame: "I as pr \<Longrightarrow> I as (pr\<lparr>parsed := v\<rparr>)" "I as pr \<Longrightarrow> I as (pr\<lparr>s_cs := i, nread := n\<rparr>)"
      "I as pr \<Longrightarrow> I as (pr\<lparr>error_start := e, error_len := len, error_pos := i\<rparr>)"
begin

definition sees :: "(sip_action \<times> sip_call option) list \<Rightarrow> bool" where
  "sees L \<longleftrightarrow> (\<forall>xs a c ys. L = xs @ (a, c) # ys \<longrightarrow>
     (\<exists>buffer p pr. I (map fst xs) pr \<and> c = fst (sip_do buffer p a pr)))"

lemma sees_snoc:
  assumes "sees L" and "I (map fst L) pr" and "c = fst (sip_do buffer p a pr)"
  shows "sees (L @ [(a, c)])"
  unfolding sees_def
proof (intro allI impI)
  fix xs b d ys
  assume e: "L @ [(a, c)] = xs @ (b, d) # ys"
  show "\<exists>buffer p pr. I (map fst xs) pr \<and> d = fst (sip_do buffer p b pr)"
  proof (cases ys rule: rev_cases)
    case Nil
    then show ?thesis using e assms(2,3) by auto
  next
    case (snoc ys' z)
    then have "L = xs @ (b, d) # ys'" using e by simp
    then show ?thesis using assms(1) by (auto simp: sees_def)
  qed
qed

end

sublocale sip_observer \<subseteq> seen: sip_run pton ntop "\<lambda>L pr h. I (map fst L) pr \<and> sees L" for pton ntop
proof
  fix L pr h buffer a p pr' h' out
  assume i: "I (map fst L) pr \<and> sees L" and act: "sip_act pton ntop buffer a p (pr, h) = Some ((pr', h'), out)"
  show "I (map fst (L @ sip_entry buffer (a, p, pr, h))) pr' \<and> sees (L @ sip_entry buffer (a, p, pr, h))"
  proof (cases "0 \<le> a \<and> nat a < length sip_switch")
    case True
    obtain c pr1 out1 where d: "sip_do buffer p (sip_switch ! nat a) pr = (c, pr1, out1)"
      by (cases "sip_do buffer p (sip_switch ! nat a) pr")
    have i1: "I (map fst L @ [sip_switch ! nat a]) pr1" by (rule step [OF conjunct1 [OF i] d])
    have "pr' = pr1 \<or> (\<exists>v. pr' = pr1\<lparr>parsed := v\<rparr>)"
      using act True d by (auto simp: sip_act_def split: option.splits)
    then have "I (map fst L @ [sip_switch ! nat a]) pr'" using i1 frame(1) by auto
    then show ?thesis using True d i sees_snoc [of L pr c buffer p "sip_switch ! nat a"] by simp
  qed (use i act in \<open>auto simp: sip_act_def\<close>)
qed (auto intro: frame)

context sip_observer
begin

lemma run_sound:
  assumes "sip_feed T pton ntop seen cs (sip_message_parser_init pr) h = Some (pr', h', L)"
  shows "I (map fst L) pr'"
    "L = xs @ (a, c) # ys \<Longrightarrow> \<exists>buffer p pr. I (map fst xs) pr \<and> c = fst (sip_do buffer p a pr)"
proof -
  have "sees []" by (simp add: sees_def)
  then have "I (map fst L) pr' \<and> sees L" using seen.feed [of "[]", OF _ assms] init by simp
  then show "I (map fst L) pr'"
    "L = xs @ (a, c) # ys \<Longrightarrow> \<exists>buffer p pr. I (map fst xs) pr \<and> c = fst (sip_do buffer p a pr)"
    by (auto simp: sees_def)
qed

end

end
