(* ===== verification/Sip_Values.thy ===== *)
theory Sip_Values
  imports Sip_Run
begin

text \<open>
  What a SIP message says in the end: the variables of the message whose values are taken from
  single elements of it, as a function of the calls of the parser.
\<close>

subsection \<open>The variables of a message\<close>

definition message_vars :: "string list" where
  "message_vars =
     [''@sip_method'', ''@is_unknown_method'', ''@sip_version'', ''@status_code'',
      ''@reason_phrase'', ''@via_sent_by_host'', ''@via_sent_by_port'', ''@via_branch'',
      ''@via_branch_rfc3261'', ''@via_received'', ''@via_has_rport'', ''@via_has_alias'',
      ''@via_core_value'', ''@call_id'', ''@cseq'', ''@max_forwards'', ''@content_length'',
      ''@from_tag'', ''@to_tag'', ''@contact_params'', ''@contact_has_reg_id'']"

text \<open>The value that an element of the message has.\<close>

definition text_of :: "string \<Rightarrow> nat \<Rightarrow> ruby_value" where
  "text_of at n = Str (take n at)"

definition decimal_of :: "string \<Rightarrow> nat \<Rightarrow> ruby_value" where
  "decimal_of at n = (case str_to_int (take n at) of Some i \<Rightarrow> Fix i | None \<Rightarrow> Qnil)"

primrec element_value :: "msg_element \<Rightarrow> string \<Rightarrow> nat \<Rightarrow> (string \<times> ruby_value) list" where
  "element_value Sip_version at n = [(''@sip_version'', text_of at n)]"
| "element_value Status_code at n = [(''@status_code'', decimal_of at n)]"
| "element_value Reason_phrase at n = [(''@reason_phrase'', text_of at n)]"
| "element_value Via_sent_by_host at n = [(''@via_sent_by_host'', text_of at n)]"
| "element_value Via_sent_by_port at n = [(''@via_sent_by_port'', decimal_of at n)]"
| "element_value Via_branch at n = [(''@via_branch'', text_of at n)]"
| "element_value Via_branch_rfc3261 at n = [(''@via_branch_rfc3261'', Qtrue)]"
| "element_value Via_received at n = [(''@via_received'', text_of at n)]"
| "element_value Call_id at n = [(''@call_id'', text_of at n)]"
| "element_value Cseq_number at n = [(''@cseq'', LONG2FIX (strtol at 0))]"
| "element_value Max_forwards at n = [(''@max_forwards'', decimal_of at n)]"
| "element_value Content_length at n = [(''@content_length'', LONG2FIX (strtol at 0))]"
| "element_value From_tag at n = [(''@from_tag'', text_of at n)]"
| "element_value To_tag at n = [(''@to_tag'', text_of at n)]"
| "element_value Contact_params at n = (if n = 0 then [] else [(''@contact_params'', text_of at n)])"

primrec flag_value :: "msg_flag \<Rightarrow> (string \<times> ruby_value) list" where
  "flag_value Via_has_rport = [(''@via_has_rport'', Qtrue)]"
| "flag_value Via_has_alias = [(''@via_has_alias'', Qtrue)]"
| "flag_value Contact_has_reg_id = [(''@contact_has_reg_id'', Qtrue)]"

fun method_value :: "string \<Rightarrow> nat \<Rightarrow> sip_method option \<Rightarrow> (string \<times> ruby_value) list" where
  "method_value at n None = []"
| "method_value at n (Some m) =
     (case method_symbol m of
        Some s \<Rightarrow> [(''@sip_method'', Sym s)]
      | None \<Rightarrow> [(''@sip_method'', text_of at n), (''@is_unknown_method'', Qtrue)])"

fun call_values :: "sip_call \<Rightarrow> (string \<times> ruby_value) list" where
  "call_values (Method at n m) = method_value at n m"
| "call_values (Element e at n) = element_value e at n"
| "call_values (Flag f) = flag_value f"
| "call_values (Header_core_value hf at n) =
     (if n = 0 \<or> hf \<noteq> header_field_via then [] else [(''@via_core_value'', text_of at n)])"
| "call_values _ = []"

text \<open>A variable has the last value it got, a new message's are nil.\<close>

definition said :: "sip_call list \<Rightarrow> string \<Rightarrow> ruby_value" where
  "said cs = fold (\<lambda>c f. fold (\<lambda>(x, v) f. f(x := v)) (call_values c) f) cs (\<lambda>x. Qnil)"


subsection \<open>Calls that leave the variables alone\<close>

definition keeps :: "heap \<Rightarrow> heap \<Rightarrow> bool" where
  "keeps h h' \<longleftrightarrow> (\<forall>u x w. x \<in> set message_vars \<longrightarrow> rb_ivar_get u x h = Some w \<longrightarrow> rb_ivar_get u x h' = Some w)"

lemma keeps_refl [simp]: "keeps h h"
  by (simp add: keeps_def)

lemma keeps_trans: "keeps h h1 \<Longrightarrow> keeps h1 h2 \<Longrightarrow> keeps h h2"
  by (simp add: keeps_def)

lemma keeps_set: "rb_ivar_set v x w h = Some h' \<Longrightarrow> x \<notin> set message_vars \<Longrightarrow> keeps h h'"
  by (auto simp: keeps_def rb_ivar_get_set)

lemma keeps_new: "rb_new ob h = (h', v) \<Longrightarrow> keeps h h'"
  by (auto simp: keeps_def rb_new_def rb_ivar_get_def deref_def nth_append bind_eq_Some_conv
      split: rval.split_asm if_split_asm)

lemma keeps_ary_new: "rb_ary_new vs h = (h', v) \<Longrightarrow> keeps h h'"
  using keeps_new by simp

lemma keeps_push: "rb_ary_push v w h = Some h' \<Longrightarrow> keeps h h'"
  by (cases "deref v h"; cases "body (the (deref v h))")
    (auto simp: keeps_def rb_ary_push_def rb_ivar_get_def deref_store bind_eq_Some_conv)

lemma keeps_aset: "rb_hash_aset v k w h = Some h' \<Longrightarrow> keeps h h'"
  by (cases "deref v h"; cases "body (the (deref v h))")
    (auto simp: keeps_def rb_hash_aset_def rb_ivar_get_def deref_store bind_eq_Some_conv)

lemma other_vars:
  "''@parsed'' \<notin> set message_vars" "''@headers'' \<notin> set message_vars" "''@ruri'' \<notin> set message_vars"
  "''@from'' \<notin> set message_vars" "''@to'' \<notin> set message_vars" "''@routes'' \<notin> set message_vars"
  "''@contact'' \<notin> set message_vars" "''@hdr_via'' \<notin> set message_vars"
  "''@hdr_from'' \<notin> set message_vars" "''@hdr_to'' \<notin> set message_vars"
  "''@hdr_route'' \<notin> set message_vars" "''@scheme'' \<notin> set message_vars"
  "''@uri'' \<notin> set message_vars" "''@user'' \<notin> set message_vars" "''@host'' \<notin> set message_vars"
  "''@host_type'' \<notin> set message_vars" "''@port'' \<notin> set message_vars"
  "''@params'' \<notin> set message_vars" "''@via_params'' \<notin> set message_vars"
  "''@transport_param'' \<notin> set message_vars" "''@ovid_param'' \<notin> set message_vars"
  "''@phone_context_param'' \<notin> set message_vars" "''@lr_param'' \<notin> set message_vars"
  "''@ob_param'' \<notin> set message_vars" "''@display_name'' \<notin> set message_vars"
  "''@require'' \<notin> set message_vars" "''@proxy_require'' \<notin> set message_vars"
  "''@supported'' \<notin> set message_vars"
  by (simp_all add: message_vars_def)

lemma keeps_init_component:
  assumes "init_component v c h = Some h'"
  shows "keeps h h'"
proof (cases c)
  case component_route_uri
  obtain h1 w where n: "rb_obj_alloc cNameAddr h = (h1, w)" by (cases "rb_obj_alloc cNameAddr h")
  then obtain r where "rb_ary_push r w h1 = Some h'"
    using assms component_route_uri by (auto simp: init_component_def bind_eq_Some_conv)
  then show ?thesis by (rule keeps_trans [OF keeps_new [OF n] keeps_push])
qed (use assms in \<open>auto simp: init_component_def other_vars split: prod.split_asm
       intro: keeps_trans [OF keeps_new keeps_set]\<close>)

lemma keeps_sip_header:
  assumes "sip_header v f n w m l h = Some h'"
  shows "keeps h h'"
proof -
  obtain name b H el where run:
      "rb_hash_lookup H (headerize name) h = Some el" "chars w m = Some b"
      "chars f n = Some name" "rb_ivar_get v ''@headers'' h = Some H"
    using assms by (auto simp: sip_header_def Let_def bind_eq_Some_conv)
  obtain h1 r where new: "rb_ary_new [Imm (Str b)] h = (h1, r)" by (cases "rb_ary_new [Imm (Str b)] h")
  show ?thesis
  proof (cases "is_T_ARRAY el h")
    case True
    then show ?thesis using assms run by (auto simp: sip_header_def Let_def intro: keeps_push)
  next
    case False
    then obtain h2 where h2: "rb_hash_aset H (headerize name) r h1 = Some h2"
      using assms run new by (auto simp: sip_header_def Let_def bind_eq_Some_conv)
    have "h' = h2 \<or> (\<exists>x u. x \<notin> set message_vars \<and> rb_ivar_set v x u h2 = Some h')"
      using assms run new h2 False other_vars
      by (cases l) (auto simp: sip_header_def Let_def)
    then show ?thesis
      using keeps_trans [OF keeps_new [OF new] keeps_aset [OF h2]] keeps_trans keeps_set by blast
  qed
qed

lemma keeps_in_uri: "set_in_uri x v own w h = Some h' \<Longrightarrow> x \<notin> set message_vars \<Longrightarrow> keeps h h'"
  by (auto simp: set_in_uri_def bind_eq_Some_conv intro: keeps_set)

lemma keeps_param_aset:
  assumes "param_aset x v k kn w wn h = Some h'" and "x \<notin> set message_vars"
  shows "keeps h h'"
  using assms
  by (auto simp: param_aset_def bind_eq_Some_conv split: prod.split_asm if_split_asm
       intro: keeps_aset keeps_trans [OF keeps_trans [OF keeps_new keeps_set] keeps_aset])

lemma keeps_option_tag: "option_tag v hf at n h = Some h' \<Longrightarrow> keeps h h'"
  by (cases hf)
    (auto simp: option_tag_def bind_eq_Some_conv other_vars split: prod.split_asm if_split_asm
       intro: keeps_push keeps_trans [OF keeps_trans [OF keeps_new keeps_set] keeps_push])

lemma keeps_uri_host:
  assumes "uri_host pton ntop v own at n t h = Some h'"
  shows "keeps h h'"
proof -
  obtain w where w: "host_chars at n = Some w" using assms by (auto simp: uri_host_def bind_eq_Some_conv)
  have "\<exists>h1 u u'. set_in_uri ''@host'' v own u h = Some h1 \<and> set_in_uri ''@host_type'' v own u' h1 = Some h'"
    using assms w
    by (cases t; cases "utils_normalize_ipv6 pton ntop (Str (my_rb_str_downcase w)) False")
      (auto simp: uri_host_def bind_eq_Some_conv)
  then show ?thesis
    by (elim exE conjE) (rule keeps_trans [OF keeps_in_uri keeps_in_uri], (assumption | rule other_vars)+)
qed

lemma keeps_uri_known_param: "uri_known_param v own p at n t h = Some h' \<Longrightarrow> keeps h h'"
  by (cases p)
    (auto simp: uri_known_param_def bind_eq_Some_conv other_vars split: if_split_asm intro: keeps_in_uri)

lemma keeps_uri_has_param: "uri_has_param v own p h = Some h' \<Longrightarrow> keeps h h'"
  by (cases p) (auto simp: uri_has_param_def other_vars intro: keeps_in_uri)


subsection \<open>The calls of a message\<close>

text \<open>What a message says so far.\<close>

definition says :: "rval \<Rightarrow> (string \<Rightarrow> ruby_value) \<Rightarrow> heap \<Rightarrow> bool" where
  "says m f h \<longleftrightarrow> (\<forall>x \<in> set message_vars. rb_ivar_get m x h = Some (Imm (f x)))"

lemma says_keeps: "says m f h \<Longrightarrow> keeps h h' \<Longrightarrow> says m f h'"
  by (simp add: says_def keeps_def)

lemma says_set: "says m f h \<Longrightarrow> rb_ivar_set m x (Imm v) h = Some h' \<Longrightarrow> says m (f(x := v)) h'"
  by (simp add: says_def rb_ivar_get_set)

lemma says_chars: "says m f h \<Longrightarrow> set_chars x m at n h = Some h' \<Longrightarrow> says m (f(x := text_of at n)) h'"
  by (auto simp: set_chars_def chars_def text_of_def bind_eq_Some_conv split: if_split_asm intro: says_set)

lemma says_int: "says m f h \<Longrightarrow> set_int x m at n h = Some h' \<Longrightarrow> says m (f(x := decimal_of at n)) h'"
  by (auto simp: set_int_def chars_def decimal_of_def bind_eq_Some_conv split: if_split_asm intro: says_set)

definition says_call :: "sip_call \<Rightarrow> (string \<Rightarrow> ruby_value) \<Rightarrow> string \<Rightarrow> ruby_value" where
  "says_call c f = fold (\<lambda>(x, v) f. f(x := v)) (call_values c) f"

lemma says_element:
  assumes "msg_element_fun e m at n h = Some h'" and "says m f h"
  shows "says m (says_call (Element e at n) f) h'"
  using assms
  by (cases e)
    (auto simp: says_call_def msg_sip_version_def msg_status_code_def msg_reason_phrase_def
       msg_via_sent_by_host_def msg_via_sent_by_port_def msg_via_branch_def
       msg_via_branch_rfc3261_def msg_via_received_def msg_call_id_def msg_cseq_number_def
       msg_max_forwards_def msg_content_length_def msg_from_tag_def msg_to_tag_def
       msg_contact_params_def split: if_split_asm intro: says_set says_chars says_int)

lemma says_method:
  assumes "msg_method m at n t h = Some h'" and "says m f h"
  shows "says m (says_call (Method at n t) f) h'"
proof (cases t)
  case (Some t')
  show ?thesis
  proof (cases "method_symbol t'")
    case None
    then obtain h1 where "set_chars ''@sip_method'' m at n h = Some h1"
        "rb_ivar_set m ''@is_unknown_method'' (Imm Qtrue) h1 = Some h'"
      using assms(1) Some by (auto simp: msg_method_def bind_eq_Some_conv)
    then show ?thesis using says_set [OF says_chars [OF assms(2)]] Some None by (simp add: says_call_def)
  qed (use assms Some in \<open>simp add: says_call_def msg_method_def says_set\<close>)
qed (use assms in \<open>simp add: says_call_def msg_method_def\<close>)

lemma says_core_value:
  "header_core_value m hf at n h = Some h' \<Longrightarrow> says m f h \<Longrightarrow>
   says m (says_call (Header_core_value hf at n) f) h'"
  by (cases hf)
    (auto simp: says_call_def header_core_value_def chars_def text_of_def bind_eq_Some_conv
       split: if_split_asm intro: says_set)

lemma says_flag:
  "msg_flag_fun f m h = Some h' \<Longrightarrow> says m g h \<Longrightarrow> says m (says_call (Flag f) g) h'"
  by (cases f)
    (auto simp: says_call_def msg_via_has_rport_def msg_via_has_alias_def msg_contact_has_reg_id_def
       intro: says_set)

lemma keeps_header_param: "header_param v hf k kn w wn h = Some h' \<Longrightarrow> keeps h h'"
  by (cases hf) (auto simp: header_param_def other_vars intro: keeps_param_aset)

lemma keeps_uri_param: "uri_param v own k kn w wn h = Some h' \<Longrightarrow> keeps h h'"
  by (auto simp: uri_param_def bind_eq_Some_conv other_vars split: if_split_asm intro: keeps_param_aset)

lemma keeps_uri_parts:
  "uri_scheme v own at n s h = Some h' \<Longrightarrow> keeps h h'" "uri_full v own at n h = Some h' \<Longrightarrow> keeps h h'"
  "uri_user v own at n s h = Some h' \<Longrightarrow> keeps h h'" "uri_port v own at n h = Some h' \<Longrightarrow> keeps h h'"
  "uri_headers v own at n h = Some h' \<Longrightarrow> keeps h h'" "uri_display_name v own at n h = Some h' \<Longrightarrow> keeps h h'"
  by (auto simp: uri_scheme_def uri_full_def uri_user_def uri_port_def uri_headers_def
      uri_display_name_def bind_eq_Some_conv other_vars split: if_split_asm intro: keeps_in_uri)

lemmas keeps_dests = keeps_init_component keeps_sip_header keeps_header_param keeps_option_tag
  keeps_uri_parts keeps_uri_host keeps_uri_param keeps_uri_known_param keeps_uri_has_param

lemma keeps_dispatch:
  assumes "sip_dispatch pton ntop self m c h = Some (h', m')"
  shows "(\<exists>t. c = Data_type t) \<or> (\<exists>at n t. c = Method at n t) \<or> (\<exists>e at n. c = Element e at n) \<or>
    (\<exists>f. c = Flag f) \<or> (\<exists>hf at n. c = Header_core_value hf at n) \<or>
    m' = m \<and> keeps h h' \<and> call_values c = []"
  using assms by (cases c) (simp_all, auto dest: keeps_dests)

lemma says_dispatch:
  assumes d: "sip_dispatch pton ntop self m c h = Some (h', m')" and "\<forall>t. c \<noteq> Data_type t" and "says m f h"
  shows "m' = m \<and> says m (says_call c f) h'"
  using keeps_dispatch [OF d] assms
  by (elim disjE exE)
    (auto simp: says_call_def [of c] intro: says_keeps says_method says_element says_flag says_core_value)

lemma says_replay:
  assumes "replay pton ntop self cs (h, m) = Some (h', m')" and "\<forall>t. Data_type t \<notin> set cs"
    and "says m f h"
  shows "m' = m \<and> says m (fold says_call cs f) h'"
  using assms
proof (induction cs arbitrary: h f)
  case (Cons c cs)
  obtain h1 m1 where d: "sip_dispatch pton ntop self m c h = Some (h1, m1)"
      "replay pton ntop self cs (h1, m1) = Some (h', m')"
    using Cons.prems(1) by (auto split: option.splits)
  have "m1 = m \<and> says m (says_call c f) h1"
    using Cons.prems by (intro says_dispatch [OF d(1)]) auto
  then show ?case using Cons.IH [of h1 "says_call c f"] d(2) Cons.prems(2) by simp
qed simp

lemma said_fold: "said cs = fold says_call cs (\<lambda>x. Qnil)"
  by (simp add: said_def says_call_def [abs_def])

lemma says_new:
  assumes "sip_dispatch pton ntop self v (Data_type t) h = Some (h', m)" and "t \<noteq> outbound_keepalive"
  shows "says m (\<lambda>x. Qnil) h'"
proof -
  obtain c h1 where new: "new_message c h = Some (h1, m)" "rb_ivar_set self ''@parsed'' m h1 = Some h'"
    using assms by (cases t) (auto simp: data_type_def bind_eq_Some_conv)
  let ?h0 = "h @ [new_robj c Instance]"
  have m: "m = Ref (length h)" "rb_ivar_set m ''@headers'' (Ref (length ?h0)) (?h0 @ [new_robj ''Hash'' (HashB [])]) = Some h1"
    using new(1) by (auto simp: new_message_def rb_new_def bind_eq_Some_conv)
  have old: "rb_ivar_get m x (h @ [new_robj c Instance, new_robj ''Hash'' (HashB [])]) = Some nil" for x
    by (simp add: m(1) rb_ivar_get_def deref_def nth_append new_robj_def)
  have "rb_ivar_get m x h' = Some nil" if x: "x \<in> set message_vars" for x
  proof -
    have "x \<noteq> ''@parsed''" "x \<noteq> ''@headers''" using x by (auto simp: message_vars_def)
    then show ?thesis by (simp add: rb_ivar_get_set [OF new(2)] rb_ivar_get_set [OF m(2)] old)
  qed
  then show ?thesis by (simp add: says_def)
qed

end
