(* ===== verification/Sip_Calls.thy ===== *)
theory Sip_Calls
  imports Sip_Values
begin

text \<open>
  What the parser's calls and the counts of a message depend on: only the actions before, whatever
  the arrays of the machine are.  The first observer counts header fields, the second one follows
  the URI that is asked for.
\<close>

subsection \<open>The counts\<close>

definition validity :: "sip_action \<Rightarrow> bool \<Rightarrow> bool" where
  "validity a v = (case a of A_contact_is_valid b \<Rightarrow> b | _ \<Rightarrow> v)"

definition last_valid :: "sip_action list \<Rightarrow> bool" where
  "last_valid as = fold validity as False"

definition counted :: "sip_action list \<Rightarrow> sip_message_parser \<Rightarrow> bool" where
  "counted as pr \<longleftrightarrow>
     num_via pr = count_list as A_new_via \<and> num_from pr = count_list as A_new_from \<and>
     num_to pr = count_list as A_new_to \<and> num_cseq pr = count_list as A_new_cseq \<and>
     num_call_id pr = count_list as A_new_call_id \<and>
     num_max_forwards pr = count_list as A_new_max_forwards \<and>
     num_content_length pr = count_list as A_new_content_length \<and>
     num_contact pr = count_list as A_new_contact \<and> contact_is_valid pr = last_valid as"

lemma sip_do_counts:
  fixes a buffer p pr
  defines "pr' \<equiv> fst (snd (sip_do buffer p a pr))"
  shows "num_via pr' = num_via pr + (if a = A_new_via then 1 else 0)"
    "num_from pr' = num_from pr + (if a = A_new_from then 1 else 0)"
    "num_to pr' = num_to pr + (if a = A_new_to then 1 else 0)"
    "num_cseq pr' = num_cseq pr + (if a = A_new_cseq then 1 else 0)"
    "num_call_id pr' = num_call_id pr + (if a = A_new_call_id then 1 else 0)"
    "num_max_forwards pr' = num_max_forwards pr + (if a = A_new_max_forwards then 1 else 0)"
    "num_content_length pr' = num_content_length pr + (if a = A_new_content_length then 1 else 0)"
    "num_contact pr' = num_contact pr + (if a = A_new_contact then 1 else 0)"
    "contact_is_valid pr' = validity a (contact_is_valid pr)"
  unfolding pr'_def by (cases a; simp add: set_to_def calls_def validity_def)+

interpretation counts: sip_observer counted
proof
  show "counted [] (sip_message_parser_init pr)" for pr
    by (simp add: counted_def sip_message_parser_init_def last_valid_def)
  show "counted (as @ [a]) pr'" if "counted as pr" and "sip_do buffer p a pr = (c, pr', out)"
    for as pr buffer p a c pr' out
    using that sip_do_counts [where a = a and buffer = buffer and p = p and pr = pr]
    by (simp add: counted_def last_valid_def)
qed (simp_all add: counted_def)

text \<open>The first of the core header fields that does not occur, or occurs twice.\<close>

definition missing :: "sip_action list \<Rightarrow> ruby_value" where
  "missing as =
     (case find (\<lambda>(x, a). a \<notin> set as)
        [(''Via'', A_new_via), (''From'', A_new_from), (''To'', A_new_to), (''CSeq'', A_new_cseq),
         (''Call-ID'', A_new_call_id)] of
        None \<Rightarrow> Qfalse
      | Some (x, a) \<Rightarrow> Str x)"

definition duplicated :: "sip_action list \<Rightarrow> ruby_value" where
  "duplicated as =
     (case find (\<lambda>(x, a). 1 < count_list as a)
        [(''From'', A_new_from), (''To'', A_new_to), (''CSeq'', A_new_cseq),
         (''Call-ID'', A_new_call_id), (''Max-Forwards'', A_new_max_forwards),
         (''Content-Length'', A_new_content_length)] of
        None \<Rightarrow> Qfalse
      | Some (x, a) \<Rightarrow> Str x)"

lemma counted_missing: "counted as pr \<Longrightarrow> SipMessageParser_has_missing_core_header pr = missing as"
  by (simp add: counted_def missing_def SipMessageParser_has_missing_core_header_def count_list_0_iff)

lemma counted_duplicated:
  "counted as pr \<Longrightarrow> SipMessageParser_has_duplicated_core_header pr h =
   map_option (\<lambda>h'. (duplicated as, h'))
     (rb_ivar_set (parsed pr) ''@num_vias'' (Imm (Fix (int (count_list as A_new_via)))) h)"
  by (cases "rb_ivar_set (parsed pr) ''@num_vias'' (Imm (Fix (int (count_list as A_new_via)))) h")
    (simp_all add: counted_def duplicated_def SipMessageParser_has_duplicated_core_header_def)

subsection \<open>The URI asked for\<close>

text \<open>The URI an action asks for after others: of From, To and Contact the first one only.\<close>

definition asked :: "sip_action list \<Rightarrow> sip_action \<Rightarrow> uri_owner option" where
  "asked as a =
     (case a of
        A_do_request_uri \<Rightarrow> Some uri_owner_ruri
      | A_do_from_uri \<Rightarrow> if count_list as A_new_from = 1 then Some uri_owner_from else None
      | A_do_to_uri \<Rightarrow> if count_list as A_new_to = 1 then Some uri_owner_to else None
      | A_do_route_uri \<Rightarrow> Some uri_owner_route
      | A_do_contact_uri \<Rightarrow> if count_list as A_new_contact = 1 then Some uri_owner_contact else None
      | _ \<Rightarrow> None)"

text \<open>The URI in progress, by the actions so far, the last one first.\<close>

fun open_uri :: "sip_action list \<Rightarrow> uri_owner option" where
  "open_uri [] = None"
| "open_uri (a # as) =
     (if a = A_write_uri then None
      else case asked as a of None \<Rightarrow> open_uri as | Some own \<Rightarrow> Some own)"

definition in_uri :: "sip_action list \<Rightarrow> sip_message_parser \<Rightarrow> bool" where
  "in_uri as pr \<longleftrightarrow> counted as pr \<and> the_uri_owner pr = open_uri (rev as) \<and>
     (do_uri pr \<longleftrightarrow> open_uri (rev as) \<noteq> None)"

lemma count_list_rev: "count_list (rev as) a = count_list as a"
  by (induction as) auto

interpretation uris: sip_observer in_uri
proof
  show "in_uri [] (sip_message_parser_init pr)" for pr
    using counts.init [of pr] by (simp add: in_uri_def sip_message_parser_init_def)
  show "in_uri (as @ [a]) pr'" if i: "in_uri as pr" and d: "sip_do buffer p a pr = (c, pr', out)"
    for as pr buffer p a c pr' out
  proof -
    have "counted (as @ [a]) pr'" using i d counts.step by (auto simp: in_uri_def)
    moreover have "num_from pr = count_list as A_new_from" "num_to pr = count_list as A_new_to"
        "num_contact pr = count_list as A_new_contact"
      using i by (simp_all add: in_uri_def counted_def)
    then have "the_uri_owner pr' = open_uri (rev (as @ [a])) \<and> (do_uri pr' \<longleftrightarrow> open_uri (rev (as @ [a])) \<noteq> None)"
      using i d by (cases a)
        (auto simp: in_uri_def asked_def count_list_rev set_to_def calls_def split: if_split_asm)
    ultimately show ?thesis by (simp add: in_uri_def)
  qed
qed (use counts.frame in \<open>simp_all add: in_uri_def\<close>)

subsection \<open>The calls\<close>

text \<open>
  The action that counts the header field an action belongs to, where the count decides: not for the
  tags of From and To, the option tags and the objects for URIs, which are called for every time.
\<close>

fun field_of :: "sip_action \<Rightarrow> sip_action option" where
  "field_of (A_via_element e) = Some A_new_via"
| "field_of (A_via_flag f) = Some A_new_via"
| "field_of A_header_via_core = Some A_new_via"
| "field_of A_via_param = Some A_new_via"
| "field_of A_call_id = Some A_new_call_id"
| "field_of A_cseq_number = Some A_new_cseq"
| "field_of A_max_forwards = Some A_new_max_forwards"
| "field_of A_content_length = Some A_new_content_length"
| "field_of A_contact_params = Some A_new_contact"
| "field_of A_contact_has_reg_id = Some A_new_contact"
| "field_of _ = None"

fun uri_call :: "sip_call \<Rightarrow> uri_owner option option" where
  "uri_call (Uri_scheme own at n s) = Some own"
| "uri_call (Uri_full own at n) = Some own"
| "uri_call (Uri_user own at n s) = Some own"
| "uri_call (Uri_host own at n t) = Some own"
| "uri_call (Uri_port own at n) = Some own"
| "uri_call (Uri_param own k kn w wn) = Some own"
| "uri_call (Uri_known_param own p at n t) = Some own"
| "uri_call (Uri_has_param own p) = Some own"
| "uri_call (Uri_headers own at n) = Some own"
| "uri_call (Uri_display_name own at n) = Some own"
| "uri_call _ = None"

definition uri_actions :: "sip_action list" where
  "uri_actions = [A_uri_scheme, A_uri_user, A_uri_port, A_write_uri_param, A_uri_headers,
     A_uri_display_name, A_write_uri]"

fun is_uri_action :: "sip_action \<Rightarrow> bool" where
  "is_uri_action (A_uri_host t) = True"
| "is_uri_action (A_uri_known_param k t) = True"
| "is_uri_action (A_uri_has_param k) = True"
| "is_uri_action a = (a \<in> set uri_actions)"

lemma in_uri_calls:
  assumes "in_uri as pr"
  shows "field_of a = Some n \<Longrightarrow> fst (sip_do buffer p a pr) \<noteq> None \<longleftrightarrow> count_list as n = 1"
    "is_uri_action a \<Longrightarrow> map_option uri_call (fst (sip_do buffer p a pr)) = map_option (\<lambda>own. Some (Some own)) (open_uri (rev as))"
    "\<not> is_uri_action a \<Longrightarrow> fst (sip_do buffer p a pr) = Some c \<Longrightarrow> uri_call c = None"
  using assms
  by (cases a; auto simp: in_uri_def counted_def calls_def set_to_def uri_actions_def split: if_split_asm)+

fun always_calls :: "sip_action \<Rightarrow> bool" where
  "always_calls (A_element e) = True"
| "always_calls (A_option_tag hf) = True"
| "always_calls (A_data_type t) = True"
| "always_calls a = (a \<in> {A_method, A_init_ruri, A_init_from, A_init_to, A_init_route_uri, A_init_contact})"

lemma sip_do_always: "always_calls a \<Longrightarrow> fst (sip_do buffer p a pr) \<noteq> None"
  by (cases a) (simp_all add: calls_def)

end
