(* ===== verification/Sip_Example.thy ===== *)
theory Sip_Example
  imports Sip_Calls
begin

text \<open>
  A machine of two states that has an action for each of a few letters, and a message it parses in
  three pieces: the actions, the calls and the struct that come out are evaluated.
\<close>

text \<open>
  The letters a, b, d, f, i, m, u, v and w: a request begins, a branch of a Via, the URI of a From is
  asked for, a From, its object, the mark, the user of a URI, a Via, the end of a URI.  An x has no
  action, any other character is an error.
\<close>

definition letters_machine :: sip_tables where
  "letters_machine = \<lparr>
     c_offsets = [0, 0], c_lengths = [0, 0], c_keys = [], c_spaces = [],
     c_machine = \<lparr>
       t_actions = [0, 1, 0, 1, 39, 1, 89, 1, 88, 1, 87, 1, 3, 1, 59, 1, 36, 1, 84],
       t_key_offsets = [0, 0],
       t_trans_keys = [97, 98, 100, 102, 105, 109, 117, 118, 119, 120],
       t_single_lengths = [0, 10], t_range_lengths = [0, 0], t_index_offsets = [0, 0],
       t_indicies = [0, 1, 2, 3, 4, 5, 6, 7, 8, 9, 10],
       t_trans_targs = [1, 1, 1, 1, 1, 1, 1, 1, 1, 1, 0],
       t_trans_actions = [1, 3, 5, 7, 9, 11, 13, 15, 17, 0, 0]\<rparr>\<rparr>"

lemma letters_step:
  "sip_step letters_machine s 1 97 = Some (1, [0])" "sip_step letters_machine s 1 98 = Some (1, [39])"
  "sip_step letters_machine s 1 100 = Some (1, [89])" "sip_step letters_machine s 1 102 = Some (1, [88])"
  "sip_step letters_machine s 1 105 = Some (1, [87])" "sip_step letters_machine s 1 109 = Some (1, [3])"
  "sip_step letters_machine s 1 117 = Some (1, [59])" "sip_step letters_machine s 1 118 = Some (1, [36])"
  "sip_step letters_machine s 1 119 = Some (1, [84])" "sip_step letters_machine s 1 120 = Some (1, [])"
  by (simp_all add: sip_step_def cond_step_def t0_widen_def t0_step_def t0_match_def t0_acts_at_def letters_machine_def
      find_single.simps)

lemma letters_codes:
  "schar CHR ''a'' = 97" "schar CHR ''b'' = 98" "schar CHR ''d'' = 100" "schar CHR ''f'' = 102"
  "schar CHR ''i'' = 105" "schar CHR ''m'' = 109" "schar CHR ''u'' = 117" "schar CHR ''v'' = 118"
  "schar CHR ''w'' = 119" "schar CHR ''x'' = 120"
  by (simp_all add: schar_def)

lemma letters_actions:
  "sip_switch ! 0 = A_data_type sip_request" "sip_switch ! 39 = A_via_element Via_branch"
  "sip_switch ! 89 = A_do_from_uri" "sip_switch ! 88 = A_new_from" "sip_switch ! 87 = A_init_from"
  "sip_switch ! 3 = A_mark" "sip_switch ! 59 = A_uri_user" "sip_switch ! 36 = A_new_via"
  "sip_switch ! 84 = A_write_uri" "length sip_switch = 109"
  by (simp_all add: sip_switch_def)

text \<open>The parser and the store before.\<close>

definition letters_heap :: heap where
  "letters_heap = [new_robj ''OverSIP::SIP::MessageParser'' Instance]"

definition letters_parser :: sip_message_parser where
  "letters_parser = \<lparr>
     s_cs = 0, nread = 0, error_start = None, error_len = 0, error_pos = 0, mark = 0,
     hdr_field_start = 0, hdr_field_len = 0, hdr_value_start = 0, hdr_value_len = 0,
     hdr_field_name = header_field_any, uri_start = 0, uri_param_key_start = 0,
     uri_param_key_len = 0, uri_param_value_start = 0, uri_param_value_len = 0,
     header_param_key_start = 0, header_param_key_len = 0, header_param_value_start = 0,
     header_param_value_len = 0, the_method = None, method_set = False, num_via = 0, num_from = 0,
     num_to = 0, num_call_id = 0, num_cseq = 0, num_max_forwards = 0, num_content_length = 0,
     num_contact = 0, contact_is_valid = False, route_found = False, do_uri = False,
     the_uri_owner = None, the_uri_scheme = None, uri_display_name_quoted = False, parsed = nil,
     ruby_sip_parser = Ref 0\<rparr>"

definition letters :: "string list" where
  "letters = [''avmxb'', ''vmxbif'', ''dmxuw'']"

definition letters_log :: "(sip_action \<times> sip_call option) list" where
  "letters_log =
     [(A_data_type sip_request, Some (Data_type sip_request)), (A_new_via, None), (A_mark, None),
      (A_via_element Via_branch, Some (Element Via_branch (''mxb'' @ [CHR 0x00]) 2)),
      (A_new_via, None), (A_mark, None), (A_via_element Via_branch, None),
      (A_init_from, Some (Init_component component_from)), (A_new_from, None), (A_do_from_uri, None),
      (A_mark, None),
      (A_uri_user, Some (Uri_user (Some uri_owner_from) (''mxuw'' @ [CHR 0x00]) 2 None)),
      (A_write_uri, Some (Uri_full (Some uri_owner_from) (''avmxbvmxbifdmxuw'' @ [CHR 0x00]) 15))]"

lemma mx_unescaped: "my_rb_str_hex_unescape ''mx'' = Some ''mx''"
  by code_simp

lemmas letters_simps = letters_step letters_codes letters_actions mx_unescaped sip_act_def set_to_def calls_def LEN_def
  chars_def data_type_def new_message_def rb_new_def new_robj_def rb_ivar_set_def rb_ivar_get_def deref_def store_def init_component_def
  msg_via_branch_def set_chars_def uri_user_def uri_full_def set_in_uri_def get_uri_object_def
  sip_message_parser_has_error_def sip_message_parser_is_finished_def to_c_int_def

lemma letters_run:
  "\<exists>pr' h'. sip_feed letters_machine pton ntop [] letters (sip_message_parser_init letters_parser) letters_heap =
     Some (pr', h', letters_log)"
  by (simp add: letters_simps letters_def letters_parser_def letters_heap_def letters_log_def sip_message_parser_init_def sip_message_parser_execute_def sip_log_def Let_def)

end
