(* ===== verification/Sip_Headers.thy ===== *)
theory Sip_Headers
  imports Sip_Example
begin

text \<open>
  The header fields of a message: what \<open>header\<close> (ext/sip_parser/sip_parser_ruby.c) makes of the
  fields the parser hands over during a run, among all the other calls, which leave them alone.
\<close>

text \<open>
  The fields of the calls, as name, value and what the parser takes the field for, and the Hash they
  make: every field under its canonical name.
\<close>

fun header_of :: "sip_call \<Rightarrow> (string \<times> string \<times> header_field) list" where
  "header_of (Header f n v k l) = [(take n f, take k v, l)]"
| "header_of _ = []"

definition header_calls :: "sip_call list \<Rightarrow> (string \<times> string \<times> header_field) list" where
  "header_calls cs = concat (map header_of cs)"

definition fields_of :: "(string \<times> string \<times> header_field) list \<Rightarrow> (ruby_value \<times> ruby_value list) list" where
  "fields_of hs = fold (\<lambda>(f, v, l). mm_add (headerize f) (Str v)) hs []"

text \<open>The first value of a field, nil when there is none.\<close>

definition first_value :: "string \<Rightarrow> (ruby_value \<times> ruby_value list) list \<Rightarrow> ruby_value" where
  "first_value k m = (case map_of m (Str k) of Some (v # vs) \<Rightarrow> v | _ \<Rightarrow> Qnil)"

text \<open>
  The fields that are the first of their name: \<open>seen\<close> are the names that occurred.  Only what such a
  field is taken for counts, the last one when there are more.
\<close>

fun first_fields ::
  "ruby_value list \<Rightarrow> (string \<times> string \<times> header_field) list \<Rightarrow> (string \<times> string \<times> header_field) list" where
  "first_fields seen [] = []"
| "first_fields seen ((f, v, l) # hs) =
     (if headerize f \<in> set seen then first_fields seen hs
      else (f, v, l) # first_fields (headerize f # seen) hs)"

definition taken_for ::
  "header_field \<Rightarrow> (string \<times> string \<times> header_field) list \<Rightarrow> (string \<times> string \<times> header_field) option" where
  "taken_for l hs = find (\<lambda>(f, v, l'). l' = l) (rev (first_fields [] hs))"

text \<open>The Array of that field, and its value.\<close>

definition field_array ::
  "header_field \<Rightarrow> (string \<times> string \<times> header_field) list \<Rightarrow> rval \<Rightarrow> heap \<Rightarrow> rval option" where
  "field_array l hs H h =
     (case taken_for l hs of None \<Rightarrow> Some nil | Some (f, v, l') \<Rightarrow> rb_hash_lookup H (headerize f) h)"

definition field_text :: "header_field \<Rightarrow> (string \<times> string \<times> header_field) list \<Rightarrow> ruby_value" where
  "field_text l hs = (case taken_for l hs of None \<Rightarrow> Qnil | Some (f, v, l') \<Rightarrow> Str v)"

text \<open>
  The first field of every name is taken for \<open>l\<close> when, and only when, its name is \<open>k\<close>.  This says
  nothing of the others: a second Route is taken for any field.
\<close>

definition first_labelled :: "header_field \<Rightarrow> string \<Rightarrow> (string \<times> string \<times> header_field) list \<Rightarrow> bool" where
  "first_labelled l k hs \<longleftrightarrow> list_all (\<lambda>(f, v, l'). l' = l \<longleftrightarrow> headerize f = Str k) (first_fields [] hs)"

text \<open>
  What the parser takes a field for, by the actions so far, the last one first: what was initialised
  since its name was read, a Route only once in a message.
\<close>

fun label_of :: "sip_action list \<Rightarrow> header_field" where
  "label_of [] = header_field_any"
| "label_of (a # as) =
     (case a of
        A_write_hdr_field \<Rightarrow> header_field_any
      | A_init_via \<Rightarrow> header_field_via
      | A_init_from \<Rightarrow> header_field_from
      | A_init_to \<Rightarrow> header_field_to
      | A_init_route \<Rightarrow> if A_init_route \<in> set as then label_of as else header_field_route
      | A_init_contact \<Rightarrow> header_field_contact
      | _ \<Rightarrow> label_of as)"

definition labels :: "sip_action list \<Rightarrow> sip_message_parser \<Rightarrow> bool" where
  "labels as pr \<longleftrightarrow>
     hdr_field_name pr = label_of (rev as) \<and> (route_found pr \<longleftrightarrow> A_init_route \<in> set as)"

interpretation label: sip_observer labels
proof
  show "labels [] (sip_message_parser_init pr)" for pr
    by (simp add: labels_def sip_message_parser_init_def)
  show "labels (as @ [a]) pr'" if "labels as pr" and "sip_do buffer p a pr = (c, pr', out)"
    for as pr buffer p a c pr' out
    using that by (cases a) (auto simp: labels_def set_to_def calls_def split: if_split_asm)
qed (simp_all add: labels_def)

lemma labels_header:
  "labels as pr \<Longrightarrow> fst (sip_do buffer p a pr) = Some (Header f n v k l) \<Longrightarrow> l = label_of (rev as)"
  by (cases a) (auto simp: labels_def set_to_def calls_def split: if_split_asm)

subsection \<open>One field\<close>

definition field_hash :: "rval \<Rightarrow> rval \<Rightarrow> heap \<Rightarrow> (ruby_value \<times> rval) list \<Rightarrow> bool" where
  "field_hash m H h kvs \<longleftrightarrow>
     rb_ivar_get m ''@headers'' h = Some H \<and> hash_of H h = Some kvs \<and> m \<noteq> H \<and>
     (\<forall>k r. (k, r) \<in> set kvs \<longrightarrow> ary_of r h \<noteq> None) \<and> distinct (map snd kvs)"

lemma field_list_kvs:
  "hash_of H h = Some kvs \<Longrightarrow> field_list H h = map (\<lambda>(k, r). (k, values_of h r)) kvs"
  by (simp add: field_list_def)

text \<open>A further value of a field goes to the field's Array.\<close>

lemma sip_header_again:
  assumes fh: "field_hash m H h kvs" and r: "map_of kvs (headerize f) = Some r"
  shows "\<exists>h'. sip_header m f (length f) v (length v) l h = Some h' \<and> field_hash m H h' kvs \<and>
    field_list H h' = mm_add (headerize f) (Str v) (field_list H h) \<and>
    (\<forall>u x. rb_ivar_get u x h' = rb_ivar_get u x h) \<and>
    (\<forall>u. u \<noteq> r \<longrightarrow> ary_of u h' = ary_of u h) \<and> (\<forall>u. allocated u h' = allocated u h)"
proof -
  have kvs: "hash_of H h = Some kvs" "distinct (map snd kvs)" "rb_ivar_get m ''@headers'' h = Some H"
    using fh by (simp_all add: field_hash_def)
  obtain vs where vs: "ary_of r h = Some vs"
    using fh map_of_SomeD [OF r] by (auto simp: field_hash_def)
  obtain h' where h': "rb_ary_push r (Imm (Str v)) h = Some h'"
    "\<And>u. ary_of u h' = (if u = r then Some (vs @ [Imm (Str v)]) else ary_of u h)"
    "\<And>u. hash_of u h' = hash_of u h" "\<And>u x. rb_ivar_get u x h' = rb_ivar_get u x h"
    "\<And>u. allocated u h' = allocated u h"
    by (rule ary_push [OF vs, where w = "Imm (Str v)"]) (rule that)
  have "sip_header m f (length f) v (length v) l h = Some h'"
    using h'(1) kvs r vs by (simp add: sip_header_def chars_def hash_lookup is_T_ARRAY_def)
  moreover have "field_hash m H h' kvs" using fh by (auto simp: field_hash_def h')
  moreover have "field_list H h' = mm_add (headerize f) (Str v) (field_list H h)"
  proof -
    have "field_list H h' =
        map (\<lambda>(k', r'). (k', if r' = r then values_of h r @ [Str v] else values_of h r')) kvs"
      by (auto simp: field_list_def kvs h' vs values_of_def)
    then show ?thesis by (simp add: field_list_kvs [OF kvs(1)] mm_add_push [OF r kvs(2)])
  qed
  ultimately show ?thesis using h'(2,4,5) by auto
qed

text \<open>The first value of a field makes an Array for it, which the message may get too.\<close>

definition label_var :: "header_field \<Rightarrow> rval \<Rightarrow> rval \<Rightarrow> string \<Rightarrow> rval option" where
  "label_var l array v x =
     (if l = header_field_via \<and> x = ''@hdr_via'' then Some array
      else if l = header_field_from \<and> x = ''@hdr_from'' then Some v
      else if l = header_field_to \<and> x = ''@hdr_to'' then Some v
      else if l = header_field_route \<and> x = ''@hdr_route'' then Some array
      else None)"

definition fresh_array :: "rval \<Rightarrow> rval \<Rightarrow> heap \<Rightarrow> heap \<Rightarrow> bool" where
  "fresh_array m r h h' \<longleftrightarrow>
     \<not> allocated r h \<and> (\<forall>u. allocated u h' \<longleftrightarrow> u = r \<or> allocated u h) \<and>
     (\<forall>u. u \<noteq> r \<longrightarrow> ary_of u h' = ary_of u h) \<and>
     (\<forall>u x. u \<noteq> m \<longrightarrow> rb_ivar_get u x h' = (if u = r then Some nil else rb_ivar_get u x h))"

lemma sip_header_first:
  assumes fh: "field_hash m H h kvs" and r: "map_of kvs (headerize f) = None"
  shows "\<exists>h' r. sip_header m f (length f) v (length v) l h = Some h' \<and>
    field_hash m H h' (kvs @ [(headerize f, r)]) \<and>
    field_list H h' = mm_add (headerize f) (Str v) (field_list H h) \<and>
    (\<forall>x. rb_ivar_get m x h' =
       (case label_var l r (Imm (Str v)) x of Some w \<Rightarrow> Some w | None \<Rightarrow> rb_ivar_get m x h)) \<and>
    fresh_array m r h h'"
proof -
  have kvs: "hash_of H h = Some kvs" "distinct (map snd kvs)" "rb_ivar_get m ''@headers'' h = Some H" "m \<noteq> H"
    and ary: "\<And>k r. (k, r) \<in> set kvs \<Longrightarrow> ary_of r h \<noteq> None"
    using fh by (auto simp: field_hash_def)
  let ?v = "Imm (Str v)" and ?k = "headerize f"
  obtain h1 r where new: "rb_ary_new [?v] h = (h1, r)" by (cases "rb_ary_new [?v] h")
  note n = ary_new [OF new]
  have hr: "H \<noteq> r" "m \<noteq> r" using n(5) kvs(1) n(6) kvs(3) by auto
  have "hash_of H h1 = Some kvs" using n(2) kvs(1) by simp
  then obtain h2 where h2: "rb_hash_aset H ?k r h1 = Some h2"
    "\<And>u. hash_of u h2 = (if u = H then Some (assoc_set ?k r kvs) else hash_of u h1)"
    "\<And>u. ary_of u h2 = ary_of u h1" "\<And>u x. rb_ivar_get u x h2 = rb_ivar_get u x h1"
    "\<And>u. allocated u h2 = allocated u h1" by (rule hash_aset [where k = ?k and w = r]) (rule that)
  have fld: "(k, r) \<notin> set kvs" for k using ary n(4) by blast
  note set = assoc_set_new [OF r]
  have kn: "?k \<notin> fst ` set kvs" using r by (simp add: map_of_eq_None_iff)
  have ivs: "rb_ivar_get m x h2 = rb_ivar_get m x h" for x using n(3) h2(4) hr(2) by simp
  have fl: "field_list H h2 = mm_add ?k (Str v) (field_list H h)"
  proof -
    have "field_list H h2 = field_list H h @ [(?k, [Str v])]"
      using fld by (auto simp: field_list_def kvs h2 n values_of_def set)
    also have "\<dots> = mm_add ?k (Str v) (field_list H h)"
      using kn by (intro mm_add_new [symmetric]) (auto simp: field_list_def kvs image_iff)
    finally show ?thesis .
  qed
  have fh2: "field_hash m H h2 (kvs @ [(?k, r)])"
    using kvs ary fld ivs set by (auto simp: field_hash_def h2 n)
  have fr2: "fresh_array m r h h2" using n h2(3,4,5) by (simp add: fresh_array_def)
  have get: "rb_ivar_get m y h2 \<noteq> None" for y using ivs kvs(3) by (auto simp: rb_ivar_get_def split: bind_splits)
  have run: "sip_header m f (length f) v (length v) l h =
      (case l of
         header_field_via \<Rightarrow> rb_ivar_set m ''@hdr_via'' r h2
       | header_field_from \<Rightarrow> rb_ivar_set m ''@hdr_from'' ?v h2
       | header_field_to \<Rightarrow> rb_ivar_set m ''@hdr_to'' ?v h2
       | header_field_route \<Rightarrow> rb_ivar_set m ''@hdr_route'' r h2
       | _ \<Rightarrow> Some h2)"
    using kvs r new h2(1) by (simp add: sip_header_def chars_def hash_lookup is_T_ARRAY_def Let_def)
  have set_var: "\<exists>h'. rb_ivar_set m x w h2 = Some h' \<and> field_hash m H h' (kvs @ [(?k, r)]) \<and>
      field_list H h' = mm_add ?k (Str v) (field_list H h) \<and>
      (\<forall>y. rb_ivar_get m y h' = (if y = x then Some w else rb_ivar_get m y h)) \<and> fresh_array m r h h'"
    if "x \<noteq> ''@headers''" for x w
  proof -
    obtain h' where h': "rb_ivar_set m x w h2 = Some h'"
      "\<And>u z. rb_ivar_get u z h' = (if u = m \<and> z = x then Some w else rb_ivar_get u z h2)"
      "\<And>u. ary_of u h' = ary_of u h2" "\<And>u. hash_of u h' = hash_of u h2"
      "\<And>u. allocated u h' = allocated u h2"
      by (rule ivar_set [OF get, where x = x and w = w]) (rule that)
    have "values_of h' = values_of h2" by (simp add: values_of_def h' fun_eq_iff)
    then have "field_list H h' = field_list H h2" by (simp only: field_list_def h')
    then show ?thesis using fh2 fl ivs fr2 that h' by (auto simp: field_hash_def fresh_array_def)
  qed
  show ?thesis
  proof (cases l)
    case header_field_via
    then show ?thesis using set_var [of "''@hdr_via''" r] unfolding run
      by (auto simp: label_var_def intro!: exI [of _ r])
  next
    case header_field_from
    then show ?thesis using set_var [of "''@hdr_from''" ?v] unfolding run
      by (auto simp: label_var_def intro!: exI [of _ r])
  next
    case header_field_to
    then show ?thesis using set_var [of "''@hdr_to''" ?v] unfolding run
      by (auto simp: label_var_def intro!: exI [of _ r])
  next
    case header_field_route
    then show ?thesis using set_var [of "''@hdr_route''" r] unfolding run
      by (auto simp: label_var_def intro!: exI [of _ r])
  qed (use fh2 fl ivs fr2 run in \<open>auto simp: label_var_def intro!: exI [of _ r]\<close>)
qed


subsection \<open>The objects the other calls write\<close>

text \<open>
  What the other calls change is apart from the header fields: an object or Array the message refers
  to by another variable is none of theirs, and neither is what these refer to.
\<close>

definition header_vars :: "string list" where
  "header_vars = [''@parsed'', ''@headers'', ''@hdr_via'', ''@hdr_from'', ''@hdr_to'', ''@hdr_route'']"

definition object_apart :: "rval \<Rightarrow> rval \<Rightarrow> rval \<Rightarrow> heap \<Rightarrow> bool" where
  "object_apart m H w h \<longleftrightarrow> allocated w h \<and> w \<noteq> m \<and> rb_ivar_get w ''@params'' h \<noteq> Some H"

definition value_apart :: "rval \<Rightarrow> rval \<Rightarrow> rval set \<Rightarrow> rval \<Rightarrow> heap \<Rightarrow> bool" where
  "value_apart m H rs r h \<longleftrightarrow> object_apart m H r h \<and> r \<noteq> H \<and> r \<notin> rs \<and>
     (\<forall>vs. ary_of r h = Some vs \<longrightarrow> (\<forall>w \<in> set vs. object_apart m H w h))"

definition fields_apart :: "rval \<Rightarrow> rval \<Rightarrow> heap \<Rightarrow> (ruby_value \<times> rval) list \<Rightarrow> bool" where
  "fields_apart m H h kvs \<longleftrightarrow> field_hash m H h kvs \<and>
     (\<forall>x r. x \<notin> set header_vars \<longrightarrow> rb_ivar_get m x h = Some r \<longrightarrow> value_apart m H (snd ` set kvs) r h)"

text \<open>A change that keeps this, the Hash, its Arrays and the variables for them.\<close>

definition apart_step :: "rval \<Rightarrow> rval \<Rightarrow> (ruby_value \<times> rval) list \<Rightarrow> heap \<Rightarrow> heap \<Rightarrow> bool" where
  "apart_step m H kvs h h' \<longleftrightarrow> fields_apart m H h' kvs \<and> field_list H h' = field_list H h \<and>
     (\<forall>x \<in> set header_vars. rb_ivar_get m x h' = rb_ivar_get m x h)"

lemma apart_step_refl: "fields_apart m H h kvs \<Longrightarrow> apart_step m H kvs h h"
  by (simp add: apart_step_def)

lemma apart_step_trans: "apart_step m H kvs h h1 \<Longrightarrow> apart_step m H kvs h1 h2 \<Longrightarrow> apart_step m H kvs h h2"
  by (simp add: apart_step_def)

lemma apart_stepD: "apart_step m H kvs h h' \<Longrightarrow> fields_apart m H h' kvs"
  by (simp add: apart_step_def)

lemma object_apart_Imm [simp]: "m \<noteq> Imm x \<Longrightarrow> object_apart m H (Imm x) h"
  by (auto simp: object_apart_def rb_ivar_get_def)

lemma fields_apartD:
  assumes "fields_apart m H h kvs"
  shows "field_hash m H h kvs" "hash_of H h = Some kvs" "\<And>r. r \<in> snd ` set kvs \<Longrightarrow> ary_of r h \<noteq> None"
    "rb_ivar_get m ''@headers'' h = Some H" "H \<noteq> Imm x" "m \<noteq> Imm x" "allocated m h" "allocated H h"
    "\<And>x r. x \<notin> set header_vars \<Longrightarrow> rb_ivar_get m x h = Some r \<Longrightarrow> value_apart m H (snd ` set kvs) r h"
proof -
  show fh: "field_hash m H h kvs" using assms by (simp add: fields_apart_def)
  show hash: "hash_of H h = Some kvs" and "\<And>r. r \<in> snd ` set kvs \<Longrightarrow> ary_of r h \<noteq> None"
    and iv: "rb_ivar_get m ''@headers'' h = Some H" using fh by (auto simp: field_hash_def)
  show "H \<noteq> Imm x" "m \<noteq> Imm x" using hash iv by (auto simp: hash_of_def rb_ivar_get_def)
  show "allocated m h" "allocated H h"
    using hash iv by (auto simp: hash_of_Some allocated_def rb_ivar_get_def bind_eq_Some_conv
        split: rval.split dest: deref_SomeD)
qed (use assms in \<open>simp add: fields_apart_def\<close>)

text \<open>It is enough that the Hash and its Arrays stay, and the other variables stay apart.\<close>

lemma apart_stepI:
  assumes i: "fields_apart m H h kvs"
    and "hash_of H h' = hash_of H h" and a: "\<And>r. r \<in> snd ` set kvs \<Longrightarrow> ary_of r h' = ary_of r h"
    and v: "\<And>x. x \<in> set header_vars \<Longrightarrow> rb_ivar_get m x h' = rb_ivar_get m x h"
    and "\<And>x r. x \<notin> set header_vars \<Longrightarrow> rb_ivar_get m x h' = Some r \<Longrightarrow> value_apart m H (snd ` set kvs) r h'"
  shows "apart_step m H kvs h h'"
proof -
  have x: "''@headers'' \<in> set header_vars" by (simp add: header_vars_def)
  have "field_hash m H h' kvs"
    using fields_apartD(1) [OF i] assms(2) v [OF x] a by (force simp: field_hash_def)
  moreover have "field_list H h' = field_list H h"
    using fields_apartD(2) [OF i] assms(2) a by (force simp: field_list_def values_of_def)
  ultimately show ?thesis using assms(4,5) by (simp add: apart_step_def fields_apart_def)
qed

lemma value_apart_mono:
  assumes "value_apart m H rs r h" and "ary_of r h' = ary_of r h"
    and "\<And>w. object_apart m H w h \<Longrightarrow> object_apart m H w h'"
  shows "value_apart m H rs r h'"
  using assms by (auto simp: value_apart_def)

lemma value_apart_Imm: "fields_apart m H h kvs \<Longrightarrow> value_apart m H rs (Imm x) h \<longleftrightarrow> Imm x \<notin> rs"
  using fields_apartD(5) [of m H h kvs x] fields_apartD(6) [of m H h kvs x] by (auto simp: value_apart_def)

lemma imm_no_array: "fields_apart m H h kvs \<Longrightarrow> Imm x \<notin> snd ` set kvs"
  using fields_apartD(3) by fastforce

subsection \<open>The four writes\<close>

lemma apart_new:
  assumes i: "fields_apart m H h kvs" and new: "rb_new (new_robj c b) h = (h', r)"
    and b: "\<And>vs. b = AryB vs \<Longrightarrow> vs = []"
  shows "apart_step m H kvs h h' \<and> value_apart m H (snd ` set kvs) r h'"
proof -
  have r: "r = Ref (length h)" "h' = h @ [new_robj c b]" using new by (simp_all add: rb_new_def)
  have old: "\<not> allocated r h" by (simp add: r allocated_def)
  have get: "rb_ivar_get u x h' = (if u = r then Some nil else rb_ivar_get u x h)" for u x
    by (simp add: r rb_ivar_get_def deref_new_eq new_robj_def)
  have al: "allocated u h' \<longleftrightarrow> u = r \<or> allocated u h" for u
    by (auto simp: r allocated_def split: rval.split)
  have ary: "u \<noteq> r \<Longrightarrow> ary_of u h' = ary_of u h" "u \<noteq> r \<Longrightarrow> hash_of u h' = hash_of u h" for u
    by (simp_all add: r ary_of_def hash_of_def deref_new_eq)
  have ne: "m \<noteq> r" "H \<noteq> r" "r \<notin> snd ` set kvs"
    using old fields_apartD(3,7,8) [OF i] ary_allocated by fastforce+
  have ob: "object_apart m H w h \<Longrightarrow> object_apart m H w h'" for w
    using old by (auto simp: object_apart_def get al)
  have "apart_step m H kvs h h'"
  proof (rule apart_stepI [OF i])
    fix x u
    assume "x \<notin> set header_vars" "rb_ivar_get m x h' = Some u"
    then have u: "value_apart m H (snd ` set kvs) u h" using fields_apartD(9) [OF i] ne by (simp add: get)
    then have "u \<noteq> r" using old by (auto simp: value_apart_def object_apart_def)
    then show "value_apart m H (snd ` set kvs) u h'" using value_apart_mono [OF u ary(1)] ob by blast
  next
    fix u
    assume "u \<in> snd ` set kvs"
    then have "u \<noteq> r" using ne(3) by metis
    then show "ary_of u h' = ary_of u h" by (rule ary(1))
  qed (use ne(1,2) ary(2) get in auto)
  moreover have "ary_of r h' = Some vs \<Longrightarrow> vs = []" for vs
    using b by (cases b) (auto simp: r ary_of_def deref_new_eq new_robj_def)
  then have "value_apart m H (snd ` set kvs) r h'"
    using ne fields_apartD(5) [OF i, of Qnil] by (force simp: value_apart_def object_apart_def al get)
  ultimately show ?thesis by blast
qed

lemma apart_ivar_set:
  assumes i: "fields_apart m H h kvs" and set: "rb_ivar_set u x w h = Some h'"
    and at: "u = m \<and> x \<notin> set header_vars \<and> value_apart m H (snd ` set kvs) w h \<or> u \<noteq> m \<and> (x = ''@params'' \<longrightarrow> w \<noteq> H)"
  shows "apart_step m H kvs h h' \<and> (\<forall>r. value_apart m H (snd ` set kvs) r h \<longrightarrow> value_apart m H (snd ` set kvs) r h')"
proof -
  have ob: "object_apart m H r h \<Longrightarrow> object_apart m H r h'" for r
    using at allocated_length [OF rb_ivar_set_length [OF set]]
    by (auto simp: object_apart_def rb_ivar_get_set [OF set])
  have va: "value_apart m H (snd ` set kvs) r h \<Longrightarrow> value_apart m H (snd ` set kvs) r h'" for r
    by (erule value_apart_mono) (simp_all add: rb_ivar_set_ary_of [OF set] ob)
  have "apart_step m H kvs h h'"
    using at va fields_apartD(9) [OF i]
    by (intro apart_stepI [OF i])
      (auto simp: rb_ivar_set_hash_of [OF set] rb_ivar_set_ary_of [OF set] rb_ivar_get_set [OF set] split: if_splits)
  then show ?thesis using va by blast
qed

lemma apart_push:
  assumes i: "fields_apart m H h kvs" and push: "rb_ary_push u w h = Some h'"
    and u: "u \<notin> snd ` set kvs" and w: "object_apart m H w h"
  shows "apart_step m H kvs h h'"
proof -
  obtain vs where vs: "ary_of u h = Some vs"
    using push by (cases "deref u h"; cases "body (the (deref u h))") (auto simp: rb_ary_push_def ary_of_Some)
  obtain h1 where "rb_ary_push u w h = Some h1"
    and h1: "\<And>r. ary_of r h1 = (if r = u then Some (vs @ [w]) else ary_of r h)"
    "\<And>r. hash_of r h1 = hash_of r h" "\<And>r x. rb_ivar_get r x h1 = rb_ivar_get r x h"
    "\<And>r. allocated r h1 = allocated r h"
    by (rule ary_push [OF vs, where w = w]) (rule that)
  then have h': "h1 = h'" using push by simp
  have ob: "object_apart m H r h1 = object_apart m H r h" for r by (simp add: object_apart_def h1)
  have "value_apart m H (snd ` set kvs) r h1" if "value_apart m H (snd ` set kvs) r h" for r
    using that w vs by (auto simp: value_apart_def ob h1)
  then show ?thesis
    unfolding h' [symmetric] using fields_apartD(9) [OF i] u by (intro apart_stepI [OF i]) (auto simp: h1)
qed

lemma apart_aset:
  assumes i: "fields_apart m H h kvs" and aset: "rb_hash_aset u k w h = Some h'" and u: "u \<noteq> H"
  shows "apart_step m H kvs h h'"
proof -
  obtain xs where xs: "hash_of u h = Some xs"
    using aset by (cases "deref u h"; cases "body (the (deref u h))") (auto simp: rb_hash_aset_def hash_of_Some)
  obtain h1 where "rb_hash_aset u k w h = Some h1"
    and h1: "\<And>r. hash_of r h1 = (if r = u then Some (assoc_set k w xs) else hash_of r h)"
    "\<And>r. ary_of r h1 = ary_of r h" "\<And>r x. rb_ivar_get r x h1 = rb_ivar_get r x h"
    "\<And>r. allocated r h1 = allocated r h"
    by (rule hash_aset [OF xs, where k = k and w = w]) (rule that)
  then have h': "h1 = h'" using aset by simp
  have "value_apart m H rs r h1 = value_apart m H rs r h" for r rs
    by (simp add: value_apart_def object_apart_def h1)
  then show ?thesis
    unfolding h' [symmetric] using fields_apartD(9) [OF i] u by (intro apart_stepI [OF i]) (auto simp: h1)
qed

subsection \<open>The other calls\<close>

lemma apart_set_message:
  assumes i: "fields_apart m H h kvs" and "rb_ivar_set m x (Imm v) h = Some h'" and "x \<notin> set header_vars"
  shows "apart_step m H kvs h h'"
  using apart_ivar_set [OF i assms(2)] assms(3) value_apart_Imm [OF i] imm_no_array [OF i] by simp

lemma apart_alloc_message:
  assumes i: "fields_apart m H h kvs" and new: "rb_new (new_robj c b) h = (h1, r)" "\<And>vs. b = AryB vs \<Longrightarrow> vs = []"
    and set: "rb_ivar_set m x r h1 = Some h'" "x \<notin> set header_vars"
  shows "apart_step m H kvs h h' \<and> value_apart m H (snd ` set kvs) r h'"
proof -
  have n: "apart_step m H kvs h h1" "value_apart m H (snd ` set kvs) r h1" using apart_new [OF i new] by simp_all
  show ?thesis using apart_ivar_set [OF apart_stepD [OF n(1)] set(1)] set(2) n apart_step_trans by blast
qed

lemma uri_object_apart:
  assumes i: "fields_apart m H h kvs" and u: "get_uri_object m (Some own) h = Some u"
  shows "object_apart m H u h"
proof -
  note v = fields_apartD(9) [OF i]
  show ?thesis
  proof (cases "own = uri_owner_route")
    case True
    then obtain r vs where r: "rb_ivar_get m ''@routes'' h = Some r" "ary_of r h = Some vs" "vs \<noteq> []" "u = last vs"
      using u by (auto simp: get_uri_object_def bind_eq_Some_conv split: if_splits)
    then show ?thesis using v [OF _ r(1)] by (auto simp: value_apart_def header_vars_def)
  next
    case False
    then obtain x where "rb_ivar_get m x h = Some u" "x \<in> {''@ruri'', ''@from'', ''@to'', ''@contact''}"
      using u by (cases own) (auto simp: get_uri_object_def)
    then show ?thesis using v [of x u] by (auto simp: value_apart_def header_vars_def)
  qed
qed

lemma apart_in_uri:
  assumes i: "fields_apart m H h kvs" and "set_in_uri x m (Some own) v h = Some h'"
  shows "apart_step m H kvs h h'"
proof -
  obtain u where u: "get_uri_object m (Some own) h = Some u" "rb_ivar_set u x (Imm v) h = Some h'"
    using assms(2) by (auto simp: set_in_uri_def bind_eq_Some_conv)
  then have "u \<noteq> m" using uri_object_apart [OF i u(1)] by (simp add: object_apart_def)
  then show ?thesis using apart_ivar_set [OF i u(2)] fields_apartD(5) [OF i] by metis
qed

lemma apart_param_aset:
  assumes i: "fields_apart m H h kvs" and run: "param_aset x u k kn w wn h = Some h'"
    and u: "u = m \<and> x \<notin> set header_vars \<or> object_apart m H u h \<and> x = ''@params''"
  shows "apart_step m H kvs h h'"
proof -
  obtain p where p: "rb_ivar_get u x h = Some p" using run by (auto simp: param_aset_def bind_eq_Some_conv)
  show ?thesis
  proof (cases "p = nil")
    case False
    then obtain y v where "rb_hash_aset p y v h = Some h'"
      using run p by (auto simp: param_aset_def bind_eq_Some_conv split: prod.split_asm)
    moreover have "p \<noteq> H" using u p fields_apartD(9) [OF i, of x p] by (auto simp: object_apart_def value_apart_def)
    ultimately show ?thesis by (rule apart_aset [OF i])
  next
    case True
    obtain h1 r where n: "rb_hash_new h = (h1, r)" by (cases "rb_hash_new h")
    obtain h2 y v where h2: "rb_ivar_set u x r h1 = Some h2" "rb_hash_aset r y v h2 = Some h'"
      using run p True n by (auto simp: param_aset_def bind_eq_Some_conv split: prod.split_asm)
    have s: "apart_step m H kvs h h1" "value_apart m H (snd ` set kvs) r h1"
      using apart_new [OF i n] by simp_all
    then have "r \<noteq> H" by (simp add: value_apart_def)
    moreover have "apart_step m H kvs h1 h2"
      using apart_ivar_set [OF apart_stepD [OF s(1)] h2(1)] u s(2) \<open>r \<noteq> H\<close> by (auto simp: object_apart_def)
    ultimately show ?thesis using s(1) apart_aset [OF apart_stepD h2(2)] apart_step_trans by metis
  qed
qed

lemma apart_option_tag:
  assumes i: "fields_apart m H h kvs" and run: "option_tag m hf at n h = Some h'"
  shows "apart_step m H kvs h h'"
proof -
  obtain x p where x: "option_tag_owner hf = Some x" and p: "rb_ivar_get m x h = Some p"
    using run by (auto simp: option_tag_def bind_eq_Some_conv)
  have xv: "x \<notin> set header_vars" using x by (cases hf) (auto simp: header_vars_def)
  show ?thesis
  proof (cases "p = nil")
    case False
    then obtain v where v: "rb_ary_push p (Imm v) h = Some h'"
      using run x p by (auto simp: option_tag_def bind_eq_Some_conv)
    have "p \<notin> snd ` set kvs" using fields_apartD(9) [OF i xv p] by (simp add: value_apart_def)
    then show ?thesis using apart_push [OF i v] fields_apartD(6) [OF i] by simp
  next
    case True
    obtain h1 r where n: "rb_ary_new [] h = (h1, r)" by (cases "rb_ary_new [] h")
    then obtain h2 v where h2: "rb_ivar_set m x r h1 = Some h2" "rb_ary_push r (Imm v) h2 = Some h'"
      using run x p True by (auto simp: option_tag_def bind_eq_Some_conv)
    have s: "apart_step m H kvs h h2" "value_apart m H (snd ` set kvs) r h2"
      using apart_alloc_message [OF i n _ h2(1) xv] by simp_all
    then have "r \<notin> snd ` set kvs" by (simp add: value_apart_def)
    then show ?thesis
      using apart_push [OF apart_stepD [OF s(1)] h2(2)] fields_apartD(6) [OF i] apart_step_trans [OF s(1)] by simp
  qed
qed

lemma apart_init_component:
  assumes i: "fields_apart m H h kvs" and run: "init_component m c h = Some h'"
  shows "apart_step m H kvs h h'"
proof (cases "c = component_route_uri")
  case True
  obtain h1 w where n: "rb_obj_alloc cNameAddr h = (h1, w)" by (cases "rb_obj_alloc cNameAddr h")
  then obtain r where r: "rb_ivar_get m ''@routes'' h = Some r" "rb_ary_push r w h1 = Some h'"
    using run True by (auto simp: init_component_def bind_eq_Some_conv)
  have s: "apart_step m H kvs h h1" "object_apart m H w h1"
    using apart_new [OF i n] by (simp_all add: value_apart_def)
  have "r \<notin> snd ` set kvs"
    using fields_apartD(9) [OF i _ r(1)] by (simp add: value_apart_def header_vars_def)
  then show ?thesis using apart_push [OF apart_stepD [OF s(1)] r(2) _ s(2)] s(1) apart_step_trans by blast
next
  case False
  then obtain x d b h1 r where "rb_new (new_robj d b) h = (h1, r)" "\<And>vs. b = AryB vs \<Longrightarrow> vs = []"
      "rb_ivar_set m x r h1 = Some h'" "x \<notin> set header_vars"
    using run by (cases c) (force simp: init_component_def header_vars_def split: prod.split_asm)+
  then show ?thesis using apart_alloc_message [OF i] by blast
qed

text \<open>The call for a field gives the Hash a value, and a field that is the first of its name a variable.\<close>

lemma sip_header_chars:
  assumes "sip_header m f n v k l h = Some h'"
  shows "sip_header m (take n f) (length (take n f)) (take k v) (length (take k v)) l h = Some h'"
  using assms by (auto simp: sip_header_def chars_def split: if_split_asm)

lemma apart_header:
  assumes i: "fields_apart m H h kvs" and run: "sip_header m f n v k l h = Some h'"
  defines "name \<equiv> headerize (take n f)" and "w \<equiv> Imm (Str (take k v))"
  shows "\<exists>kvs'. fields_apart m H h' kvs' \<and> field_list H h' = mm_add name (Str (take k v)) (field_list H h) \<and>
    (case map_of kvs name of
       Some r \<Rightarrow> kvs' = kvs \<and> (\<forall>x. rb_ivar_get m x h' = rb_ivar_get m x h)
     | None \<Rightarrow> \<exists>r. kvs' = kvs @ [(name, r)] \<and>
         (\<forall>x. rb_ivar_get m x h' = (case label_var l r w x of Some u \<Rightarrow> Some u | None \<Rightarrow> rb_ivar_get m x h)))"
proof (cases "map_of kvs name")
  case (Some r)
  have mem: "r \<in> snd ` set kvs" using Some by (force dest: map_of_SomeD)
  obtain h1 where "sip_header m (take n f) (length (take n f)) (take k v) (length (take k v)) l h = Some h1"
    and h1: "field_hash m H h1 kvs" "field_list H h1 = mm_add name (Str (take k v)) (field_list H h)"
      "\<forall>u x. rb_ivar_get u x h1 = rb_ivar_get u x h" "\<forall>u. u \<noteq> r \<longrightarrow> ary_of u h1 = ary_of u h"
      "\<forall>u. allocated u h1 = allocated u h"
    using sip_header_again [OF fields_apartD(1) [OF i] Some [unfolded name_def]] unfolding name_def by metis
  then have eq: "h1 = h'" using sip_header_chars [OF run] by simp
  have "object_apart m H u h1 = object_apart m H u h" for u using h1 by (simp add: object_apart_def)
  then have "value_apart m H (snd ` set kvs) u h1" if "value_apart m H (snd ` set kvs) u h" for u
    using that mem h1(4) by (auto simp: value_apart_def)
  then have "fields_apart m H h1 kvs" using fields_apartD(9) [OF i] h1(1,3) by (simp add: fields_apart_def)
  then show ?thesis using h1(2,3) Some by (simp add: eq)
next
  case None
  obtain h1 r where "sip_header m (take n f) (length (take n f)) (take k v) (length (take k v)) l h = Some h1"
    and h1: "field_hash m H h1 (kvs @ [(name, r)])" "field_list H h1 = mm_add name (Str (take k v)) (field_list H h)"
      "\<forall>x. rb_ivar_get m x h1 = (case label_var l r w x of Some u \<Rightarrow> Some u | None \<Rightarrow> rb_ivar_get m x h)"
      "fresh_array m r h h1"
    using sip_header_first [OF fields_apartD(1) [OF i] None [unfolded name_def]] unfolding name_def w_def by metis
  then have eq: "h1 = h'" using sip_header_chars [OF run] by simp
  have ob: "object_apart m H u h1 \<and> u \<noteq> r" if "object_apart m H u h" for u
    using that h1(4) by (auto simp: object_apart_def fresh_array_def)
  have va: "value_apart m H (insert r (snd ` set kvs)) u h1" if "value_apart m H (snd ` set kvs) u h" for u
    using that ob h1(4) by (fastforce simp: value_apart_def fresh_array_def)
  have "rb_ivar_get m x h1 = rb_ivar_get m x h" if "x \<notin> set header_vars" for x
    using that h1(3) by (auto simp: label_var_def header_vars_def)
  then have "fields_apart m H h1 (kvs @ [(name, r)])"
    using fields_apartD(9) [OF i] h1(1) va by (simp add: fields_apart_def)
  then show ?thesis using h1(2,3) None by (auto simp: eq)
qed

lemmas element_defs = msg_sip_version_def msg_status_code_def msg_reason_phrase_def
  msg_via_sent_by_host_def msg_via_sent_by_port_def msg_via_branch_def msg_via_branch_rfc3261_def
  msg_via_received_def msg_call_id_def msg_cseq_number_def msg_max_forwards_def
  msg_content_length_def msg_from_tag_def msg_to_tag_def msg_contact_params_def

lemma apart_set_chars:
  "fields_apart m H h kvs \<Longrightarrow> set_chars x m at n h = Some h' \<Longrightarrow> x \<notin> set header_vars \<Longrightarrow> apart_step m H kvs h h'"
  "fields_apart m H h kvs \<Longrightarrow> set_int x m at n h = Some h' \<Longrightarrow> x \<notin> set header_vars \<Longrightarrow> apart_step m H kvs h h'"
  by (auto simp: set_chars_def set_int_def bind_eq_Some_conv intro: apart_set_message)

lemma no_header_vars:
  "''@sip_version'' \<notin> set header_vars" "''@status_code'' \<notin> set header_vars"
  "''@reason_phrase'' \<notin> set header_vars" "''@via_sent_by_host'' \<notin> set header_vars"
  "''@via_sent_by_port'' \<notin> set header_vars" "''@via_branch'' \<notin> set header_vars"
  "''@via_branch_rfc3261'' \<notin> set header_vars" "''@via_received'' \<notin> set header_vars"
  "''@via_has_rport'' \<notin> set header_vars" "''@via_has_alias'' \<notin> set header_vars"
  "''@via_core_value'' \<notin> set header_vars" "''@call_id'' \<notin> set header_vars"
  "''@cseq'' \<notin> set header_vars" "''@max_forwards'' \<notin> set header_vars"
  "''@content_length'' \<notin> set header_vars" "''@from_tag'' \<notin> set header_vars"
  "''@to_tag'' \<notin> set header_vars" "''@contact_params'' \<notin> set header_vars"
  "''@contact_has_reg_id'' \<notin> set header_vars" "''@sip_method'' \<notin> set header_vars"
  "''@is_unknown_method'' \<notin> set header_vars" "''@via_params'' \<notin> set header_vars"
  by (simp_all add: header_vars_def)

lemma apart_element:
  assumes i: "fields_apart m H h kvs" and "msg_element_fun e m at n h = Some h'"
  shows "apart_step m H kvs h h'"
  using assms
  by (cases e)
    (auto simp: element_defs no_header_vars split: if_split_asm
       intro: apart_set_message apart_set_chars apart_step_refl)

lemma apart_method:
  assumes i: "fields_apart m H h kvs" and run: "msg_method m at n t h = Some h'"
  shows "apart_step m H kvs h h'"
proof (cases "t = None \<or> (\<exists>u s. t = Some u \<and> method_symbol u = Some s)")
  case True
  then show ?thesis using assms
    by (auto simp: msg_method_def no_header_vars intro: apart_set_message apart_step_refl)
next
  case False
  then obtain h1 where "set_chars ''@sip_method'' m at n h = Some h1"
      "rb_ivar_set m ''@is_unknown_method'' (Imm Qtrue) h1 = Some h'"
    using run by (auto simp: msg_method_def bind_eq_Some_conv)
  moreover from apart_set_chars(1) [OF i this(1) no_header_vars(20)] have s: "apart_step m H kvs h h1" .
  ultimately show ?thesis
    using apart_step_trans [OF s apart_set_message [OF apart_stepD [OF s] _ no_header_vars(21)]] by blast
qed

lemma apart_flag: "fields_apart m H h kvs \<Longrightarrow> msg_flag_fun f m h = Some h' \<Longrightarrow> apart_step m H kvs h h'"
  by (cases f)
    (auto simp: msg_via_has_rport_def msg_via_has_alias_def msg_contact_has_reg_id_def no_header_vars
       intro: apart_set_message)

lemma apart_core_value:
  "fields_apart m H h kvs \<Longrightarrow> header_core_value m hf at n h = Some h' \<Longrightarrow> apart_step m H kvs h h'"
  by (cases hf)
    (auto simp: header_core_value_def bind_eq_Some_conv no_header_vars split: if_split_asm
       intro: apart_set_message apart_step_refl)

lemma apart_header_param:
  "fields_apart m H h kvs \<Longrightarrow> header_param m hf k kn w wn h = Some h' \<Longrightarrow> apart_step m H kvs h h'"
  by (cases hf) (auto simp: header_param_def no_header_vars intro: apart_param_aset apart_step_refl)

lemma apart_uri_param:
  assumes i: "fields_apart m H h kvs" and run: "uri_param m (Some own) k kn w wn h = Some h'"
  shows "apart_step m H kvs h h'"
proof -
  obtain u where u: "get_uri_object m (Some own) h = Some u"
      "u = nil \<and> h' = h \<or> param_aset ''@params'' u k kn w wn h = Some h'"
    using run by (auto simp: uri_param_def bind_eq_Some_conv split: if_split_asm)
  then show ?thesis using uri_object_apart [OF i] apart_param_aset [OF i] apart_step_refl [OF i] by metis
qed

lemma apart_uri_host:
  assumes i: "fields_apart m H h kvs" and "uri_host pton ntop m (Some own) at n t h = Some h'"
  shows "apart_step m H kvs h h'"
proof -
  obtain w where w: "host_chars at n = Some w" using assms by (auto simp: uri_host_def bind_eq_Some_conv)
  have "\<exists>h1 u u'. set_in_uri ''@host'' m (Some own) u h = Some h1 \<and> set_in_uri ''@host_type'' m (Some own) u' h1 = Some h'"
    using assms(2) w
    by (cases t; cases "utils_normalize_ipv6 pton ntop (Str (my_rb_str_downcase w)) False")
      (auto simp: uri_host_def bind_eq_Some_conv)
  then obtain h1 u u' where h1: "set_in_uri ''@host'' m (Some own) u h = Some h1"
      "set_in_uri ''@host_type'' m (Some own) u' h1 = Some h'" by blast
  from apart_in_uri [OF i h1(1)] have s: "apart_step m H kvs h h1" .
  then show ?thesis by (rule apart_step_trans) (rule apart_in_uri [OF apart_stepD [OF s] h1(2)])
qed

lemma apart_uri_parts:
  assumes i: "fields_apart m H h kvs"
  shows "uri_scheme m (Some own) at n s h = Some h' \<Longrightarrow> apart_step m H kvs h h'"
    "uri_full m (Some own) at n h = Some h' \<Longrightarrow> apart_step m H kvs h h'"
    "uri_user m (Some own) at n s h = Some h' \<Longrightarrow> apart_step m H kvs h h'"
    "uri_port m (Some own) at n h = Some h' \<Longrightarrow> apart_step m H kvs h h'"
    "uri_headers m (Some own) at n h = Some h' \<Longrightarrow> apart_step m H kvs h h'"
    "uri_display_name m (Some own) at n h = Some h' \<Longrightarrow> apart_step m H kvs h h'"
    "uri_known_param m (Some own) p at n t h = Some h' \<Longrightarrow> apart_step m H kvs h h'"
    "uri_has_param m (Some own) p h = Some h' \<Longrightarrow> apart_step m H kvs h h'"
  using i
  by (auto simp: uri_scheme_def uri_full_def uri_user_def uri_port_def uri_headers_def uri_display_name_def
      uri_known_param_def uri_has_param_def bind_eq_Some_conv split: if_split_asm uri_param_name.split_asm
      intro: apart_in_uri apart_step_refl)

lemmas apart_dests = apart_init_component apart_element apart_method apart_flag apart_core_value
  apart_header_param apart_option_tag apart_uri_parts apart_uri_host apart_uri_param

lemma apart_dispatch:
  assumes i: "fields_apart m H h kvs" and run: "sip_dispatch pton ntop self m c h = Some (h', m')"
    and c: "\<forall>t. c \<noteq> Data_type t" "\<forall>f n v k l. c \<noteq> Header f n v k l" "uri_call c \<noteq> Some None"
  shows "m' = m \<and> apart_step m H kvs h h'"
proof -
  have own: "(\<exists>o'. own = Some o') \<or> uri_call c = Some None" if "uri_call c = Some own" for own
    using that by (cases own) auto
  show ?thesis using assms own
    by (cases c) (auto dest: apart_dests)
qed

subsection \<open>All of them\<close>

text \<open>After the fields \<open>hs\<close>, whatever other calls there were in between.\<close>

definition after_fields ::
  "rval \<Rightarrow> rval \<Rightarrow> heap \<Rightarrow> (ruby_value \<times> rval) list \<Rightarrow> (string \<times> string \<times> header_field) list \<Rightarrow> bool" where
  "after_fields m H h kvs hs \<longleftrightarrow>
     fields_apart m H h kvs \<and> field_list H h = fields_of hs \<and>
     (\<forall>x l. (x, l) \<in> {(''@hdr_via'', header_field_via), (''@hdr_route'', header_field_route)} \<longrightarrow>
        rb_ivar_get m x h = field_array l hs H h) \<and>
     (\<forall>x l. (x, l) \<in> {(''@hdr_from'', header_field_from), (''@hdr_to'', header_field_to)} \<longrightarrow>
        rb_ivar_get m x h = Some (Imm (field_text l hs)))"

lemma map_of_mm_add:
  "map_of (mm_add k v m) k' =
   (if k' = k then Some ((case map_of m k of None \<Rightarrow> [] | Some vs \<Rightarrow> vs) @ [v]) else map_of m k')"
  by (induction k v m rule: mm_add.induct) auto

lemma fields_of_snoc: "fields_of (hs @ [(f, v, l)]) = mm_add (headerize f) (Str v) (fields_of hs)"
  by (simp add: fields_of_def)

lemma fields_of_names: "map_of (fields_of hs) k = None \<longleftrightarrow> k \<notin> (headerize \<circ> fst) ` set hs"
proof (induction hs rule: rev_induct)
  case (snoc x hs)
  obtain f v l where x: "x = (f, v, l)" by (cases x)
  show ?case unfolding x fields_of_snoc using snoc by (auto simp: map_of_mm_add)
qed (simp add: fields_of_def)

lemma first_fields_snoc:
  "first_fields seen (hs @ [(f, v, l)]) =
   first_fields seen hs @ (if headerize f \<in> set seen \<union> (headerize \<circ> fst) ` set hs then [] else [(f, v, l)])"
  by (induction seen hs rule: first_fields.induct) auto

lemma taken_for_snoc:
  "taken_for l (hs @ [(f, v, l')]) =
   (if headerize f \<notin> (headerize \<circ> fst) ` set hs \<and> l' = l then Some (f, v, l') else taken_for l hs)"
  by (simp add: taken_for_def first_fields_snoc)

lemma first_fields_sub: "set (first_fields seen hs) \<subseteq> set hs"
  by (induction seen hs rule: first_fields.induct) auto

lemma taken_for_mem: "taken_for l hs = Some (f, v, l') \<Longrightarrow> (f, v, l') \<in> set (first_fields [] hs)"
  by (auto simp: taken_for_def find_Some_iff dest: nth_mem)
    (metis nth_mem set_rev length_rev)

lemma field_hash_values:
  "field_hash m H h kvs \<Longrightarrow> map_of (field_list H h) k = map_option (values_of h) (map_of kvs k)"
proof -
  have "map_of (map (\<lambda>(k, r). (k, values_of h r)) kvs) k = map_option (values_of h) (map_of kvs k)"
    by (induction kvs) auto
  then show "field_hash m H h kvs \<Longrightarrow> ?thesis" by (simp add: field_hash_def field_list_kvs)
qed

lemma after_header:
  assumes af: "after_fields m H h kvs hs" and run: "sip_header m f n v k l h = Some h'"
  shows "\<exists>kvs'. after_fields m H h' kvs' (hs @ [(take n f, take k v, l)])"
proof -
  let ?name = "headerize (take n f)" and ?x = "(take n f, take k v, l)" and ?w = "Imm (Str (take k v))"
  have i: "fields_apart m H h kvs" and fl: "field_list H h = fields_of hs"
    and arr: "rb_ivar_get m ''@hdr_via'' h = field_array header_field_via hs H h"
      "rb_ivar_get m ''@hdr_route'' h = field_array header_field_route hs H h"
    and tex: "rb_ivar_get m ''@hdr_from'' h = Some (Imm (field_text header_field_from hs))"
      "rb_ivar_get m ''@hdr_to'' h = Some (Imm (field_text header_field_to hs))"
    using af by (simp_all add: after_fields_def)
  have names: "map_of kvs k = None \<longleftrightarrow> k \<notin> (headerize \<circ> fst) ` set hs" for k
    using field_hash_values [OF fields_apartD(1) [OF i], of k] fields_of_names [of hs k] by (simp add: fl)
  obtain kvs' where k: "fields_apart m H h' kvs'" "field_list H h' = fields_of (hs @ [?x])"
    and c: "case map_of kvs ?name of
       Some r \<Rightarrow> kvs' = kvs \<and> (\<forall>x. rb_ivar_get m x h' = rb_ivar_get m x h)
     | None \<Rightarrow> \<exists>r. kvs' = kvs @ [(?name, r)] \<and>
         (\<forall>x. rb_ivar_get m x h' = (case label_var l r ?w x of Some u \<Rightarrow> Some u | None \<Rightarrow> rb_ivar_get m x h))"
    using apart_header [OF i run] by (auto simp: fl fields_of_snoc)
  note look = hash_lookup [OF fields_apartD(2) [OF i]] hash_lookup [OF fields_apartD(2) [OF k(1)]]
  have "after_fields m H h' kvs' (hs @ [?x])"
  proof (cases "map_of kvs ?name")
    case (Some r)
    then have "?name \<in> (headerize \<circ> fst) ` set hs" using names [of ?name] by (metis option.distinct(1))
    then have t: "taken_for l' (hs @ [?x]) = taken_for l' hs" for l' by (simp add: taken_for_snoc)
    have "kvs' = kvs" and "\<And>x. rb_ivar_get m x h' = rb_ivar_get m x h" using c Some by simp_all
    moreover from this(1) have "field_array l' (hs @ [?x]) H h' = field_array l' hs H h" for l'
      by (simp add: field_array_def t look split: option.split)
    ultimately show ?thesis using k arr tex by (simp add: after_fields_def field_text_def t)
  next
    case None
    obtain r where kvs': "kvs' = kvs @ [(?name, r)]"
      and iv: "\<And>x. rb_ivar_get m x h' = (case label_var l r ?w x of Some u \<Rightarrow> Some u | None \<Rightarrow> rb_ivar_get m x h)"
      using c None by auto
    have "?name \<notin> (headerize \<circ> fst) ` set hs" using None names by blast
    then have t: "taken_for l' (hs @ [?x]) = (if l = l' then Some ?x else taken_for l' hs)" for l'
      by (simp add: taken_for_snoc)
    have old: "map_of kvs' (headerize g) = map_of kvs (headerize g)"
      if "taken_for l' hs = Some (g, w, l'')" for g w l' l''
    proof -
      have "g \<in> fst ` set hs" using taken_for_mem [OF that] first_fields_sub by force
      then have "map_of kvs (headerize g) \<noteq> None" using names [of "headerize g"] by force
      then show ?thesis by (auto simp: kvs')
    qed
    have "map_of kvs' ?name = Some r" using None by (simp add: kvs' map_of_append map_add_def)
    then have "field_array l' (hs @ [?x]) H h' = (if l = l' then Some r else field_array l' hs H h)" for l'
      using old [of l'] by (auto simp: field_array_def t look split: option.split)
    then show ?thesis
      using k arr tex by (simp add: after_fields_def field_text_def t iv label_var_def)
  qed
  then show ?thesis by blast
qed

lemma header_of_cases: "(\<exists>f n v k l. c = Header f n v k l \<and> header_of c = [(take n f, take k v, l)]) \<or>
    (\<forall>f n v k l. c \<noteq> Header f n v k l) \<and> header_of c = []"
  by (cases c) auto

lemma after_step:
  assumes af: "after_fields m H h kvs hs" and st: "apart_step m H kvs h h'"
  shows "after_fields m H h' kvs hs"
proof -
  have "rb_ivar_get m x h' = rb_ivar_get m x h"
    if "x \<in> {''@hdr_via'', ''@hdr_from'', ''@hdr_to'', ''@hdr_route''}" for x
    using that st by (auto simp: apart_step_def header_vars_def)
  moreover have "field_array l hs H h' = field_array l hs H h" for l
    using st af by (auto simp: field_array_def apart_step_def after_fields_def
        hash_lookup [OF fields_apartD(2)] split: option.split)
  ultimately show ?thesis using st af by (simp add: after_fields_def apart_step_def)
qed

lemma after_replay:
  assumes "replay pton ntop self cs (h, m) = Some (h', m')" and "after_fields m H h kvs hs"
    and "\<forall>c \<in> set cs. (\<forall>t. c \<noteq> Data_type t) \<and> uri_call c \<noteq> Some None"
  shows "m' = m \<and> (\<exists>kvs'. after_fields m H h' kvs' (hs @ header_calls cs))"
  using assms
proof (induction cs arbitrary: h kvs hs)
  case (Cons c cs)
  obtain h1 m1 where d: "sip_dispatch pton ntop self m c h = Some (h1, m1)"
      "replay pton ntop self cs (h1, m1) = Some (h', m')"
    using Cons.prems(1) by (auto split: option.splits)
  have "m1 = m \<and> (\<exists>kvs1. after_fields m H h1 kvs1 (hs @ header_of c))"
    using header_of_cases [of c]
  proof (elim disjE exE conjE)
    fix f n v k l
    assume c: "c = Header f n v k l" "header_of c = [(take n f, take k v, l)]"
    then have "m1 = m" "sip_header m f n v k l h = Some h1" using d(1) by auto
    then show ?thesis using after_header [OF Cons.prems(2)] c(2) by simp
  next
    assume c: "\<forall>f n v k l. c \<noteq> Header f n v k l" "header_of c = []"
    have "fields_apart m H h kvs" using Cons.prems(2) by (simp add: after_fields_def)
    then have "m1 = m \<and> apart_step m H kvs h h1" using apart_dispatch [OF _ d(1)] c(1) Cons.prems(3) by simp
    then show ?thesis using after_step [OF Cons.prems(2)] c(2) by auto
  qed
  then obtain kvs1 where "m1 = m" "after_fields m H h1 kvs1 (hs @ header_of c)" by blast
  with Cons.IH [of h1 kvs1 "hs @ header_of c"] d(2) Cons.prems(3) show ?case
    by (simp add: header_calls_def)
qed (auto simp: header_calls_def)

lemma after_new:
  assumes "sip_dispatch pton ntop self v (Data_type t) h0 = Some (h, m)" and "t \<noteq> outbound_keepalive"
  shows "\<exists>H. after_fields m H h [] []"
proof -
  obtain c h1 where new: "new_message c h0 = Some (h1, m)" "rb_ivar_set self ''@parsed'' m h1 = Some h"
    using assms by (cases t) (auto simp: data_type_def bind_eq_Some_conv)
  let ?ob = "new_robj c Instance" and ?hs = "new_robj ''Hash'' (HashB [])"
  let ?m = "Ref (length h0)" and ?H = "Ref (length (h0 @ [?ob]))" and ?h = "(h0 @ [?ob]) @ [?hs]"
  have m: "m = ?m" and set: "rb_ivar_set ?m ''@headers'' ?H ?h = Some h1"
    using new(1) by (auto simp: new_message_def rb_new_def bind_eq_Some_conv)
  have old: "rb_ivar_get ?m x ?h = Some nil" for x
    by (simp add: rb_ivar_get_def deref_def nth_append new_robj_def)
  have hash: "hash_of ?H h = Some []"
    unfolding rb_ivar_set_hash_of [OF new(2)] rb_ivar_set_hash_of [OF set]
    by (simp add: hash_of_def deref_def nth_append new_robj_def)
  have get: "rb_ivar_get ?m x h = Some (if x = ''@headers'' then ?H else nil)" if "x \<noteq> ''@parsed''" for x
    using that rb_ivar_get_set [OF new(2), of ?m x] rb_ivar_get_set [OF set, of ?m x] old by simp
  have "value_apart ?m ?H {} nil h" by (simp add: value_apart_def object_apart_def rb_ivar_get_def)
  moreover have "field_hash ?m ?H h []" using get [of "''@headers''"] hash by (simp add: field_hash_def)
  ultimately have "fields_apart ?m ?H h []" using get by (auto simp: fields_apart_def header_vars_def)
  then have "after_fields ?m ?H h [] []"
    using hash get by (simp add: after_fields_def field_list_def fields_of_def field_array_def field_text_def taken_for_def)
  then show ?thesis unfolding m by blast
qed

text \<open>When the first field of a name is taken for what its name says.\<close>

lemma first_fields_names: "(headerize \<circ> fst) ` set hs \<subseteq> set seen \<union> (headerize \<circ> fst) ` set (first_fields seen hs)"
  by (induction seen hs rule: first_fields.induct) auto

lemma first_fields_value:
  "first_value k (fields_of hs) =
   (case find (\<lambda>x. headerize (fst x) = Str k) (first_fields [] hs) of None \<Rightarrow> Qnil | Some (f, v, l) \<Rightarrow> Str v)"
proof (induction hs rule: rev_induct)
  case (snoc x hs)
  obtain f v l where x: "x = (f, v, l)" by (cases x)
  have ff: "find P (ys @ [y]) = (case find P ys of None \<Rightarrow> if P y then Some y else None | Some z \<Rightarrow> Some z)" for P and ys :: "(string \<times> string \<times> header_field) list" and y
    by (induction ys) auto
  show ?case
  proof (cases "headerize f = Str k")
    case True
    have ne: "map_of (fields_of hs) (Str k) \<noteq> Some []"
      by (induction hs rule: rev_induct) (auto simp: fields_of_def map_of_mm_add split: prod.split)
    show ?thesis
    proof (cases "Str k \<in> (headerize \<circ> fst) ` set hs")
      case old: True
      then obtain vs where "map_of (fields_of hs) (Str k) = Some vs" "vs \<noteq> []"
        using fields_of_names [of hs "Str k"] ne by fastforce
      then have "first_value k (fields_of (hs @ [x])) = first_value k (fields_of hs)"
        using True by (auto simp: x fields_of_snoc first_value_def map_of_mm_add split: list.split)
      then show ?thesis using snoc old True by (simp add: x first_fields_snoc)
    next
      case False
      then have "map_of (fields_of hs) (Str k) = None" by (simp add: fields_of_names)
      moreover have "find (\<lambda>x. headerize (fst x) = Str k) (first_fields [] hs) = None"
        using False first_fields_sub by (force simp: find_None_iff)
      ultimately show ?thesis using False True
        by (simp add: x fields_of_snoc first_value_def map_of_mm_add first_fields_snoc ff)
    qed
  next
    case False
    then have "first_value k (fields_of (hs @ [x])) = first_value k (fields_of hs)"
      by (auto simp: x fields_of_snoc first_value_def map_of_mm_add)
    then show ?thesis using snoc False by (simp add: x first_fields_snoc ff split: option.split)
  qed
qed (simp add: fields_of_def first_value_def)

lemma first_fields_distinct: "distinct (map (headerize \<circ> fst) (first_fields seen hs))"
proof -
  have "distinct (map (headerize \<circ> fst) (first_fields seen hs)) \<and>
      (headerize \<circ> fst) ` set (first_fields seen hs) \<inter> set seen = {}"
    by (induction seen hs rule: first_fields.induct) auto
  then show ?thesis ..
qed

lemma first_fields_unique:
  "(f, v, l) \<in> set (first_fields [] hs) \<Longrightarrow> (f', v', l') \<in> set (first_fields [] hs) \<Longrightarrow>
   headerize f = headerize f' \<Longrightarrow> (f, v, l) = (f', v', l')"
  using first_fields_distinct [of "[]" hs] by (auto simp: distinct_map inj_on_def) force+

lemma first_labelled_None:
  assumes "first_labelled l k hs" and "taken_for l hs = None"
  shows "Str k \<notin> (headerize \<circ> fst) ` set hs"
proof
  assume "Str k \<in> (headerize \<circ> fst) ` set hs"
  then obtain f v l' where "(f, v, l') \<in> set (first_fields [] hs)" "headerize f = Str k"
    using first_fields_names [of hs "[]"] by force
  then show False using assms by (auto simp: first_labelled_def taken_for_def find_None_iff list_all_iff)
qed

lemma first_labelled_Some:
  assumes "first_labelled l k hs" and "taken_for l hs = Some (f, v, l')"
  shows "(f, v, l') \<in> set (first_fields [] hs)" "headerize f = Str k"
proof -
  show m: "(f, v, l') \<in> set (first_fields [] hs)" by (rule taken_for_mem [OF assms(2)])
  have "l' = l" using assms(2) by (auto simp: taken_for_def find_Some_iff)
  then show "headerize f = Str k" using assms(1) m by (auto simp: first_labelled_def list_all_iff)
qed

lemma first_labelled_text: "first_labelled l k hs \<Longrightarrow> field_text l hs = first_value k (fields_of hs)"
proof (cases "taken_for l hs")
  case None
  assume "first_labelled l k hs"
  from first_labelled_None [OF this None] show ?thesis
    by (simp add: field_text_def None first_value_def fields_of_names [THEN iffD2])
next
  case (Some x)
  assume lab: "first_labelled l k hs"
  obtain f v l' where x: "x = (f, v, l')" by (cases x)
  note t = first_labelled_Some [OF lab Some [unfolded x]]
  have "find (\<lambda>x. headerize (fst x) = Str k) (first_fields [] hs) \<noteq> None" using t by (auto simp: find_None_iff intro: bexI [rotated])
  then obtain g w l2 where g: "find (\<lambda>x. headerize (fst x) = Str k) (first_fields [] hs) = Some (g, w, l2)" by auto
  then have "(g, w, l2) \<in> set (first_fields [] hs)" "headerize g = Str k"
    by (auto simp: find_Some_iff) (metis fst_conv)
  then have "(g, w, l2) = (f, v, l')" using first_fields_unique t by metis
  then show ?thesis by (simp add: field_text_def Some x first_fields_value g)
qed

lemma first_labelled_array:
  assumes "after_fields m H h kvs hs" and lab: "first_labelled l k hs"
  shows "field_array l hs H h = rb_hash_lookup H (Str k) h"
proof -
  have i: "fields_apart m H h kvs" and fl: "field_list H h = fields_of hs" using assms(1) by (simp_all add: after_fields_def)
  show ?thesis
  proof (cases "taken_for l hs")
    case None
    then have "map_of (fields_of hs) (Str k) = None"
      using first_labelled_None [OF lab] by (simp add: fields_of_names)
    then have "map_of kvs (Str k) = None"
      using field_hash_values [OF fields_apartD(1) [OF i], of "Str k"] by (simp add: fl)
    then show ?thesis by (simp add: field_array_def None hash_lookup [OF fields_apartD(2) [OF i]])
  next
    case (Some x)
    obtain f v l' where x: "x = (f, v, l')" by (cases x)
    show ?thesis using first_labelled_Some(2) [OF lab Some [unfolded x]] by (simp add: field_array_def Some x)
  qed
qed

subsection \<open>A run\<close>

text \<open>Where a message begins, its parts are what follows.\<close>

lemma feed_replay:
  assumes "sip_feed T pton ntop [] cs (sip_message_parser_init pr) h = Some (pr', h', L)"
  shows "replay pton ntop (ruby_sip_parser pr) (calls_of L) (h, nil) = Some (h', parsed pr')"
  using replay.feed [OF _ assms, of "ruby_sip_parser pr" "(h, nil)" "[]"]
  by (simp add: replayed_def sip_message_parser_init_def)

lemma calls_of_mem: "c \<in> set (calls_of L) \<Longrightarrow> \<exists>xs a ys. L = xs @ (a, Some c) # ys"
proof (induction L rule: calls_of.induct)
  case (2 a L)
  then obtain xs b ys where "L = xs @ (b, Some c) # ys" by auto
  then have "(a, None) # L = ((a, None) # xs) @ (b, Some c) # ys" by simp
  then show ?case by blast
next
  case (3 a d L)
  show ?case
  proof (cases "c = d")
    case True
    then have "(a, Some d) # L = [] @ (a, Some c) # L" by simp
    then show ?thesis by blast
  next
    case False
    then obtain xs b ys where "L = xs @ (b, Some c) # ys" using 3 by auto
    then have "(a, Some d) # L = ((a, Some d) # xs) @ (b, Some c) # ys" by simp
    then show ?thesis by blast
  qed
qed simp

lemma run_uri_calls:
  assumes "sip_feed T pton ntop [] cs (sip_message_parser_init pr) h = Some (pr', h', L)"
    and "c \<in> set (calls_of L)"
  shows "uri_call c \<noteq> Some None"
proof -
  obtain xs a ys where L: "L = xs @ (a, Some c) # ys" using calls_of_mem [OF assms(2)] by blast
  obtain buffer p q where q: "in_uri (map fst xs) q" "Some c = fst (sip_do buffer p a q)"
    using uris.run_sound(2) [OF assms(1) L] by blast
  show ?thesis
    using in_uri_calls(2,3) [OF q(1), where a = a and buffer = buffer and p = p] q(2) [symmetric]
    by (cases "is_uri_action a"; cases "open_uri (rev (map fst xs))") auto
qed

lemma run_fields:
  assumes run: "sip_feed T pton ntop [] cs (sip_message_parser_init pr) h = Some (pr', h', L)"
    and calls: "calls_of L = B @ Data_type t # C" "t \<noteq> outbound_keepalive" "\<forall>t. Data_type t \<notin> set C"
  shows "\<exists>H kvs. after_fields (parsed pr') H h' kvs (header_calls C)"
proof -
  let ?self = "ruby_sip_parser pr"
  obtain h0 v h1 m where b: "sip_dispatch pton ntop ?self v (Data_type t) h0 = Some (h1, m)"
      "replay pton ntop ?self C (h1, m) = Some (h', parsed pr')"
    using feed_replay [OF run] unfolding calls(1) replay_calls_append by (auto split: option.split_asm)
  obtain H where H: "after_fields m H h1 [] []" using after_new [OF b(1) calls(2)] by blast
  have "\<forall>c \<in> set C. (\<forall>t. c \<noteq> Data_type t) \<and> uri_call c \<noteq> Some None"
    using calls(3) run_uri_calls [OF run] calls(1) by auto
  then show ?thesis using after_replay [OF b(2) H] by auto
qed

text \<open>
  C13.  The header fields of a message, in any run.  The Hash has every field the parser handed over
  since the message began under its canonical name, with its values in the order they came, whatever
  other calls were made in between.  Of the fields that are the first of their name, the one taken for
  a Via gives \<open>@hdr_via\<close> the very Array of the Hash, the one taken for a Route \<open>@hdr_route\<close>, so a proxy
  that changes one changes the message; the ones taken for a From and a To give \<open>@hdr_from\<close> and
  \<open>@hdr_to\<close> their values.  What a field is taken for is what the actions since its name was read
  initialised, a Route only the first time in the message.  Where this agrees with the names of the
  first fields, the variables are the Via and Route Arrays and the first From and To values.
\<close>

theorem sip_header_fields:
  assumes run: "sip_feed T pton ntop [] cs (sip_message_parser_init pr) h = Some (pr', h', L)"
    and calls: "calls_of L = B @ Data_type t # C" "t \<noteq> outbound_keepalive" "\<forall>t. Data_type t \<notin> set C"
  shows "(\<exists>H. rb_ivar_get (SipMessageParser_parsed pr') ''@headers'' h' = Some H \<and>
      field_list H h' = fields_of (header_calls C) \<and>
      (\<forall>(x, l, k) \<in> {(''@hdr_via'', header_field_via, ''Via''), (''@hdr_route'', header_field_route, ''Route'')}.
         rb_ivar_get (SipMessageParser_parsed pr') x h' = field_array l (header_calls C) H h' \<and>
         (first_labelled l k (header_calls C) \<longrightarrow>
            rb_ivar_get (SipMessageParser_parsed pr') x h' = rb_hash_lookup H (Str k) h')) \<and>
      (\<forall>(x, l, k) \<in> {(''@hdr_from'', header_field_from, ''From''), (''@hdr_to'', header_field_to, ''To'')}.
         rb_ivar_get (SipMessageParser_parsed pr') x h' = Some (Imm (field_text l (header_calls C))) \<and>
         (first_labelled l k (header_calls C) \<longrightarrow>
            field_text l (header_calls C) = first_value k (fields_of (header_calls C))))) \<and>
    (\<forall>xs a f n v k l ys. L = xs @ (a, Some (Header f n v k l)) # ys \<longrightarrow> l = label_of (rev (map fst xs)))"
proof -
  obtain H kvs where a: "after_fields (parsed pr') H h' kvs (header_calls C)"
    using run_fields [OF run calls] by blast
  have "l = label_of (rev (map fst xs))" if L: "L = xs @ (a, Some (Header f n v k l)) # ys" for xs a f n v k l ys
    using label.run_sound(2) [OF run L] labels_header by metis
  moreover have "fields_apart (parsed pr') H h' kvs" using a by (simp add: after_fields_def)
  then have "rb_ivar_get (parsed pr') ''@headers'' h' = Some H" by (rule fields_apartD(4))
  ultimately show ?thesis
    using a first_labelled_array [OF a] first_labelled_text
    by (auto simp: after_fields_def SipMessageParser_parsed_def intro!: exI [of _ H])
qed

subsection \<open>Two Routes and a Via\<close>

text \<open>
  A machine of two states: a zero begins a request, R and V a name, a colon ends it, a bracket is a
  Via and a less-than sign a Route, an x begins a value, a semicolon ends it and an exclamation mark
  hands the field over.  Other characters have no action.
\<close>

definition fields_machine :: sip_tables where
  "fields_machine = \<lparr>
     c_offsets = [0, 0], c_lengths = [0, 0], c_keys = [], c_spaces = [],
     c_machine = \<lparr>
       t_actions = [0, 1, 8, 1, 35, 1, 0, 1, 5, 1, 7, 1, 95, 1, 4, 1, 6],
       t_key_offsets = [0, 0],
       t_trans_keys = [33, 40, 48, 58, 59, 60, 82, 86, 120],
       t_single_lengths = [0, 9], t_range_lengths = [0, 0], t_index_offsets = [0, 0],
       t_indicies = [0, 1, 2, 3, 4, 5, 6, 7, 8, 9],
       t_trans_targs = [1, 1, 1, 1, 1, 1, 1, 1, 1, 1],
       t_trans_actions = [1, 3, 5, 7, 9, 11, 13, 13, 15, 0]\<rparr>\<rparr>"

lemma fields_step:
  "sip_step fields_machine s 1 33 = Some (1, [8])" "sip_step fields_machine s 1 40 = Some (1, [35])"
  "sip_step fields_machine s 1 48 = Some (1, [0])" "sip_step fields_machine s 1 58 = Some (1, [5])"
  "sip_step fields_machine s 1 59 = Some (1, [7])" "sip_step fields_machine s 1 60 = Some (1, [95])"
  "sip_step fields_machine s 1 82 = Some (1, [4])" "sip_step fields_machine s 1 86 = Some (1, [4])"
  "sip_step fields_machine s 1 120 = Some (1, [6])" "sip_step fields_machine s 1 97 = Some (1, [])"
  "sip_step fields_machine s 1 98 = Some (1, [])" "sip_step fields_machine s 1 99 = Some (1, [])"
  "sip_step fields_machine s 1 101 = Some (1, [])" "sip_step fields_machine s 1 105 = Some (1, [])"
  "sip_step fields_machine s 1 111 = Some (1, [])" "sip_step fields_machine s 1 116 = Some (1, [])"
  "sip_step fields_machine s 1 117 = Some (1, [])"
  by (simp_all add: sip_step_def cond_step_def t0_widen_def t0_step_def t0_match_def t0_acts_at_def fields_machine_def
      find_single.simps)

lemma fields_codes:
  "schar CHR ''!'' = 33" "schar CHR ''('' = 40" "schar CHR ''0'' = 48" "schar CHR '':'' = 58"
  "schar CHR '';'' = 59" "schar CHR ''<'' = 60" "schar CHR ''R'' = 82" "schar CHR ''V'' = 86"
  "schar CHR ''c'' = 99" "schar CHR ''e'' = 101" "schar CHR ''o'' = 111" "schar CHR ''t'' = 116"
  by (simp_all add: schar_def)

lemma fields_actions:
  "sip_switch ! 8 = A_write_hdr_value" "sip_switch ! 35 = A_init_via" "sip_switch ! 5 = A_write_hdr_field"
  "sip_switch ! 7 = A_store_hdr_value" "sip_switch ! 95 = A_init_route" "sip_switch ! 4 = A_start_hdr_field"
  "sip_switch ! 6 = A_start_hdr_value"
  by (simp_all add: sip_switch_def)

lemma fields_names: "headerize ''Route'' = Str ''Route''" "headerize ''Via'' = Str ''Via''"
  by code_simp+

definition fields_log :: "(sip_action \<times> sip_call option) list" where
  "fields_log =
     [(A_data_type sip_request, Some (Data_type sip_request)), (A_start_hdr_field, None),
      (A_write_hdr_field, None), (A_init_route, Some (Init_component component_route)),
      (A_start_hdr_value, None), (A_store_hdr_value, None),
      (A_write_hdr_value, Some (Header (''Route:<xa;!'' @ [CHR 0x00]) 5 (''xa;!'' @ [CHR 0x00]) 2 header_field_route)),
      (A_start_hdr_field, None), (A_write_hdr_field, None), (A_init_route, None),
      (A_start_hdr_value, None), (A_store_hdr_value, None),
      (A_write_hdr_value, Some (Header (''Route:<xb;!Via:(xc;!'' @ [CHR 0x00]) 5
         (''xb;!Via:(xc;!'' @ [CHR 0x00]) 2 header_field_any)),
      (A_start_hdr_field, None), (A_write_hdr_field, None), (A_init_via, None),
      (A_start_hdr_value, None), (A_store_hdr_value, None),
      (A_write_hdr_value, Some (Header (''Via:(xc;!'' @ [CHR 0x00]) 3 (''xc;!'' @ [CHR 0x00]) 2 header_field_via))]"

lemma fields_run:
  "\<exists>pr' h'. sip_feed fields_machine pton ntop [] [''0Route:<xa;!'', ''Route:<xb;!Via:(xc;!'']
     (sip_message_parser_init letters_parser) letters_heap = Some (pr', h', fields_log)"
  by (simp add: letters_simps fields_step fields_codes fields_actions fields_names letters_parser_def letters_heap_def
      fields_log_def sip_message_parser_init_def sip_message_parser_execute_def sip_log_def Let_def sip_header_def
      rb_hash_lookup_def rb_hash_aset_def rb_ary_push_def is_T_ARRAY_def ary_of_def)

theorem sip_header_fields_witness:
  "\<exists>pr' h' L H. sip_feed fields_machine (\<lambda>f s. (0, [])) (\<lambda>f b. None) [] [''0Route:<xa;!'', ''Route:<xb;!Via:(xc;!'']
       (sip_message_parser_init letters_parser) letters_heap = Some (pr', h', L) \<and>
     rb_ivar_get (SipMessageParser_parsed pr') ''@headers'' h' = Some H \<and>
     field_list H h' = [(Str ''Route'', [Str ''xa'', Str ''xb'']), (Str ''Via'', [Str ''xc''])] \<and>
     rb_ivar_get (SipMessageParser_parsed pr') ''@hdr_route'' h' = rb_hash_lookup H (Str ''Route'') h' \<and>
     rb_ivar_get (SipMessageParser_parsed pr') ''@hdr_via'' h' = rb_hash_lookup H (Str ''Via'') h' \<and>
     rb_ivar_get (SipMessageParser_parsed pr') ''@hdr_from'' h' = Some nil"
proof -
  obtain pr' h' where run: "sip_feed fields_machine (\<lambda>f s. (0, [])) (\<lambda>f b. None) []
      [''0Route:<xa;!'', ''Route:<xb;!Via:(xc;!''] (sip_message_parser_init letters_parser) letters_heap =
      Some (pr', h', fields_log)"
    using fields_run by blast
  let ?C = "tl (calls_of fields_log)"
  have c: "calls_of fields_log = [] @ Data_type sip_request # ?C" "\<forall>t. Data_type t \<notin> set ?C"
    by (simp_all add: fields_log_def)
  have hs: "header_calls ?C = [(''Route'', ''xa'', header_field_route), (''Route'', ''xb'', header_field_any),
      (''Via'', ''xc'', header_field_via)]"
    by (simp add: fields_log_def header_calls_def)
  have f: "fields_of (header_calls ?C) = [(Str ''Route'', [Str ''xa'', Str ''xb'']), (Str ''Via'', [Str ''xc''])]"
    "first_labelled header_field_route ''Route'' (header_calls ?C)"
    "first_labelled header_field_via ''Via'' (header_calls ?C)" "field_text header_field_from (header_calls ?C) = Qnil"
    by (simp_all add: hs fields_of_def fields_names first_labelled_def field_text_def taken_for_def)
  show ?thesis using run sip_header_fields [OF run c(1) _ c(2)] f by fastforce
qed

end
