(* ===== verification/Sip_Msg_Early.thy ===== *)
theory Sip_Msg_Early
  imports Ragel_Cond
begin

text \<open>
  The part of the machine of ext/sip_parser/sip_message_parser.c in which the kind of the message is not
  known yet: its states, their places in \<open>indicies\<close>, and its transitions.
\<close>

subsection \<open>States and places\<close>

definition smp_early :: "int \<Rightarrow> bool" where
  "smp_early cs \<longleftrightarrow> (1 \<le> cs \<and> cs \<le> 5) \<or> (7585 \<le> cs \<and> cs \<le> 7604) \<or> (7611 \<le> cs \<and> cs \<le> 7686)"

definition smp_early_place :: "int \<Rightarrow> bool" where
  "smp_early_place i \<longleftrightarrow> i < 65 \<or> (69059 \<le> i \<and> i < 69260) \<or> (69272 \<le> i \<and> i < 70159)"

subsection \<open>Transitions of these states and of the others\<close>

definition smp_early_trans :: "int \<Rightarrow> bool" where
  "smp_early_trans t \<longleftrightarrow> (0 \<le> t \<and> t \<le> 20) \<or> (8746 \<le> t \<and> t \<le> 8767) \<or> (8776 \<le> t \<and> t < 8855)"

definition smp_late_trans :: "int \<Rightarrow> bool" where
  "smp_late_trans t \<longleftrightarrow> t = 1 \<or> (21 \<le> t \<and> t \<le> 8745) \<or> (8768 \<le> t \<and> t \<le> 8775)"

definition smp_place :: "int \<Rightarrow> int \<Rightarrow> bool" where
  "smp_place i t \<longleftrightarrow> (if smp_early_place i then smp_early_trans t else smp_late_trans t \<or> i = 70160 \<and> t = 0)"

lemma smp_place_late: "65 \<le> i \<Longrightarrow> i < 69059 \<Longrightarrow> smp_late_trans t \<Longrightarrow> smp_place i t"
  by (simp add: smp_place_def smp_early_place_def)

end
