(* ===== verification/Sip_Msg_States.thy ===== *)
theory Sip_Msg_States
  imports Sip_Msg_Early
begin

text \<open>
  The arrays of ext/sip_parser/sip_message_parser.c that have an element per state (7688 states), a row per
  line of the file, and the check that each state stays inside the other arrays.
\<close>

text \<open>What is checked of a state.\<close>

definition smp_state :: "int \<Rightarrow> int \<Rightarrow> int \<Rightarrow> int \<Rightarrow> int \<Rightarrow> int \<Rightarrow> int \<Rightarrow> bool" where
  "smp_state cs co cl ko sl rl io \<longleftrightarrow>
     state_inside 2659 1330 90529 70161 (co, cl, ko, sl, rl, io) \<and>
     (if smp_early cs
      then io + sl + rl < 65 \<or> (69059 \<le> io \<and> io + sl + rl < 69260) \<or> (69272 \<le> io \<and> io + sl + rl < 70159)
      else cs = 0 \<or> (65 \<le> io \<and> io + sl + rl < 69059) \<or> (69260 \<le> io \<and> io + sl + rl < 69272) \<or> (70159 \<le> io \<and> io + sl + rl < 70160))"

lemma smp_state_eq:
  "smp_state cs co cl ko sl rl io \<longleftrightarrow>
     (0 \<le> co \<and> 2 * (co + cl) \<le> 2659 \<and> co + cl \<le> 1330 \<and>
      0 \<le> ko \<and> 0 \<le> sl \<and> 0 \<le> rl \<and> 0 \<le> io \<and> ko + sl + 2 * rl \<le> 90529 \<and> io + sl + rl < 70161) \<and>
     (if smp_early cs
      then io + sl + rl < 65 \<or> (69059 \<le> io \<and> io + sl + rl < 69260) \<or> (69272 \<le> io \<and> io + sl + rl < 70159)
      else cs = 0 \<or> (65 \<le> io \<and> io + sl + rl < 69059) \<or> (69260 \<le> io \<and> io + sl + rl < 69272) \<or> (70159 \<le> io \<and> io + sl + rl < 70160))"
  by (simp add: smp_state_def state_inside_def)

definition smp_cond_offsets_1 :: "int list list" where
  "smp_cond_offsets_1 =
    [[0, 0, 0, 0, 0, 0, 0, 0],
     [0, 0, 0, 0, 0, 0, 0, 0],
     [0, 0, 0, 0, 0, 0, 0, 0],
     [0, 0, 0, 0, 0, 0, 0, 0],
     [0, 0, 0, 0, 0, 0, 0, 0],
     [0, 0, 0, 0, 0, 0, 0, 0],
     [0, 0, 0, 0, 0, 0, 0, 0],
     [0, 0, 0, 0, 0, 0, 0, 0],
     [0, 0, 0, 0, 0, 0, 0, 0],
     [0, 0, 0, 0, 0, 0, 0, 0],
     [0, 0, 0, 0, 0, 0, 0, 0],
     [0, 0, 0, 0, 0, 0, 0, 0],
     [0, 0, 0, 0, 0, 0, 0, 0],
     [0, 0, 0, 0, 0, 0, 0, 0],
     [0, 0, 0, 0, 0, 0, 0, 0],
     [0, 0, 0, 0, 0, 0, 0, 0],
     [0, 0, 0, 0, 0, 0, 0, 0],
     [0, 0, 0, 0, 0, 0, 0, 0],
     [0, 0, 0, 0, 0, 0, 0, 0],
     [0, 0, 0, 0, 0, 0, 0, 0],
     [0, 0, 0, 0, 0, 0, 0, 0],
     [0, 0, 0, 0, 0, 0, 0, 0],
     [0, 0, 0, 0, 0, 0, 0, 0],
     [0, 0, 0, 0, 0, 0, 0, 0],
     [0, 0, 0, 0, 0, 0, 0, 0],
     [0, 0, 0, 0, 0, 0, 0, 0],
     [0, 0, 0, 0, 0, 0, 0, 0],
     [0, 0, 0, 0, 0, 0, 0, 0],
     [0, 0, 0, 0, 0, 0, 0, 0],
     [0, 0, 0, 0, 0, 0, 0, 0],
     [0, 0, 0, 0, 0, 0, 0, 0],
     [0, 0, 0, 0, 0, 0, 0, 0],
     [0, 0, 0, 0, 0, 0, 0, 0],
     [0, 0, 0, 0, 0, 0, 0, 0],
     [0, 0, 0, 0, 0, 0, 0, 0],
     [0, 0, 0, 0, 0, 0, 0, 0],
     [0, 0, 0, 0, 0, 0, 0, 0],
     [0, 0, 0, 0, 0, 0, 0, 0],
     [0, 0, 0, 0, 0, 0, 0, 0],
     [0, 0, 0, 0, 0, 0, 0, 0],
     [0, 0, 0, 0, 0, 0, 0, 0],
     [0, 0, 0, 0, 0, 0, 0, 0],
     [0, 0, 0, 0, 0, 0, 0, 0],
     [0, 0, 0, 0, 0, 0, 0, 0],
     [0, 0, 0, 0, 0, 0, 0, 0],
     [0, 0, 0, 0, 0, 0, 0, 0],
     [0, 0, 0, 0, 0, 0, 0, 0],
     [0, 0, 0, 0, 0, 0, 0, 0],
     [0, 0, 0, 0, 0, 0, 0, 0],
     [0, 0, 0, 0, 0, 0, 0, 0],
     [0, 0, 0, 0, 0, 0, 0, 0],
     [0, 0, 0, 0, 0, 0, 0, 0],
     [0, 0, 0, 0, 0, 0, 0, 0],
     [0, 0, 0, 0, 0, 0, 0, 0],
     [0, 0, 0, 0, 0, 0, 0, 0],
     [0, 0, 0, 0, 0, 0, 0, 0],
     [0, 0, 0, 0, 0, 0, 0, 0],
     [0, 0, 0, 0, 0, 0, 0, 0],
     [0, 0, 0, 0, 0, 0, 0, 0],
     [0, 0, 0, 0, 0, 0, 0, 0],
     [0, 0, 0, 0, 0, 0, 0, 0],
     [0, 0, 0, 0, 0, 0, 0, 0],
     [0, 0, 0, 0, 0, 0, 0, 0],
     [0, 0, 0, 0, 0, 0, 0, 0],
     [0, 0, 0, 0, 0, 0, 0, 0],
     [0, 0, 0, 0, 0, 0, 0, 0],
     [0, 0, 0, 0, 0, 0, 0, 0],
     [0, 0, 0, 0, 0, 0, 0, 0],
     [0, 0, 0, 0, 0, 0, 0, 0],
     [0, 0, 0, 0, 0, 0, 0, 0],
     [0, 0, 0, 0, 0, 0, 0, 0],
     [0, 0, 0, 0, 0, 0, 0, 0],
     [0, 0, 0, 0, 0, 0, 0, 0],
     [0, 0, 0, 0, 0, 0, 0, 0],
     [0, 0, 0, 0, 0, 0, 0, 0],
     [0, 0, 0, 0, 0, 0, 0, 0],
     [0, 0, 0, 0, 0, 0, 0, 0],
     [0, 0, 0, 0, 0, 0, 0, 0],
     [0, 0, 0, 0, 0, 0, 0, 0],
     [0, 0, 0, 0, 0, 0, 0, 0],
     [0, 0, 0, 0, 0, 0, 0, 0],
     [0, 0, 0, 0, 0, 0, 0, 0],
     [0, 0, 0, 0, 0, 0, 0, 0],
     [0, 0, 0, 0, 0, 0, 0, 0],
     [0, 0, 0, 0, 0, 0, 0, 0],
     [0, 0, 0, 0, 0, 0, 0, 0],
     [0, 0, 0, 0, 0, 0, 0, 0],
     [0, 0, 0, 0, 0, 0, 0, 0],
     [0, 0, 0, 0, 0, 0, 0, 0],
     [0, 0, 0, 0, 0, 0, 0, 0],
     [0, 0, 0, 0, 0, 0, 0, 0],
     [0, 0, 0, 0, 0, 0, 0, 0],
     [0, 0, 0, 0, 0, 0, 0, 0],
     [0, 0, 0, 0, 0, 0, 0, 0],
     [0, 0, 0, 0, 0, 0, 0, 0],
     [0, 0, 0, 0, 0, 0, 0, 0],
     [0, 0, 0, 0, 0, 0, 0, 0],
     [0, 0, 0, 0, 0, 0, 0, 0],
     [0, 0, 0, 0, 0, 0, 0, 0],
     [0, 0, 0, 0, 0, 0, 0, 0],
     [0, 0, 0, 0, 0, 0, 0, 0],
     [0, 0, 0, 0, 0, 0, 0, 0],
     [0, 0, 0, 0, 0, 0, 0, 0],
     [0, 0, 0, 0, 0, 0, 0, 0],
     [0, 0, 0, 0, 0, 0, 0, 0],
     [0, 0, 0, 0, 0, 0, 0, 0],
     [0, 0, 0, 0, 0, 0, 0, 0],
     [0, 0, 0, 0, 0, 0, 0, 0],
     [0, 0, 0, 0, 0, 0, 0, 0],
     [0, 0, 0, 0, 0, 0, 0, 0],
     [0, 0, 0, 0, 0, 0, 0, 0],
     [0, 0, 0, 0, 0, 0, 0, 0],
     [0, 0, 0, 0, 0, 0, 0, 0],
     [0, 0, 0, 0, 0, 0, 0, 0],
     [0, 0, 0, 0, 0, 0, 0, 0],
     [0, 0, 0, 0, 0, 0, 0, 0],
     [0, 0, 0, 0, 0, 0, 0, 0],
     [0, 0, 0, 0, 0, 0, 0, 0],
     [0, 0, 0, 0, 0, 0, 0, 0],
     [0, 0, 0, 0, 0, 0, 0, 0],
     [0, 0, 0, 0, 0, 0, 0, 0],
     [0, 0, 0, 0, 0, 0, 0, 0],
     [0, 0, 0, 0, 0, 0, 0, 0],
     [0, 0, 0, 0, 0, 0, 0, 0],
     [0, 0, 0, 0, 0, 0, 0, 0],
     [0, 0, 0, 0, 0, 0, 0, 0],
     [0, 0, 0, 0, 0, 0, 0, 0],
     [0, 0, 0, 0, 0, 0, 0, 0],
     [0, 0, 0, 0, 0, 0, 0, 0],
     [0, 0, 0, 0, 0, 0, 0, 0],
     [0, 0, 0, 0, 0, 0, 0, 0],
     [0, 0, 0, 0, 0, 0, 0, 0],
     [0, 0, 0, 0, 0, 0, 0, 0],
     [0, 0, 0, 0, 0, 0, 0, 0],
     [0, 0, 0, 0, 0, 0, 0, 0],
     [0, 0, 0, 0, 0, 0, 0, 0],
     [0, 0, 0, 0, 0, 0, 0, 0],
     [0, 0, 0, 0, 0, 0, 0, 0],
     [0, 0, 0, 0, 0, 0, 0, 0],
     [0, 0, 0, 0, 0, 0, 0, 0],
     [0, 0, 0, 0, 0, 0, 0, 0],
     [0, 0, 0, 0, 0, 0, 0, 0],
     [0, 0, 0, 0, 0, 0, 0, 0],
     [0, 0, 0, 0, 0, 0, 0, 0],
     [0, 0, 0, 0, 0, 0, 0, 0],
     [0, 0, 0, 0, 0, 0, 0, 0],
     [0, 0, 0, 0, 0, 0, 0, 0],
     [0, 0, 0, 0, 0, 0, 0, 0],
     [0, 0, 0, 0, 0, 0, 0, 0],
     [0, 0, 0, 0, 0, 0, 0, 0]]"

definition smp_cond_offsets_2 :: "int list list" where
  "smp_cond_offsets_2 =
    [[0, 0, 0, 0, 0, 0, 0, 0],
     [0, 0, 0, 0, 0, 0, 0, 0],
     [0, 0, 0, 0, 0, 0, 0, 0],
     [0, 0, 0, 0, 0, 0, 0, 0],
     [0, 0, 0, 0, 0, 0, 0, 0],
     [0, 0, 0, 0, 0, 0, 0, 0],
     [0, 0, 0, 0, 0, 0, 0, 0],
     [0, 0, 0, 0, 0, 0, 0, 0],
     [0, 0, 0, 0, 0, 0, 0, 0],
     [0, 0, 0, 0, 0, 0, 0, 0],
     [0, 0, 0, 0, 0, 0, 0, 0],
     [0, 0, 0, 0, 0, 0, 0, 0],
     [0, 0, 0, 0, 0, 0, 0, 0],
     [0, 0, 0, 0, 0, 0, 0, 0],
     [0, 0, 0, 0, 0, 0, 0, 0],
     [0, 0, 0, 0, 0, 0, 0, 0],
     [0, 0, 0, 0, 0, 0, 0, 0],
     [0, 0, 0, 0, 0, 0, 0, 0],
     [0, 0, 0, 0, 0, 0, 0, 0],
     [0, 0, 0, 0, 0, 0, 0, 0],
     [0, 0, 0, 0, 0, 0, 0, 0],
     [0, 0, 0, 0, 0, 0, 0, 0],
     [0, 0, 0, 0, 0, 0, 0, 0],
     [0, 0, 0, 0, 0, 0, 0, 0],
     [0, 0, 0, 0, 0, 0, 0, 0],
     [0, 0, 0, 0, 0, 0, 0, 0],
     [0, 0, 0, 0, 0, 0, 0, 0],
     [0, 0, 0, 0, 0, 0, 0, 0],
     [0, 0, 0, 0, 0, 0, 0, 0],
     [0, 0, 0, 0, 0, 0, 0, 0],
     [0, 0, 0, 0, 0, 0, 0, 0],
     [0, 0, 0, 0, 0, 0, 0, 0],
     [0, 0, 0, 0, 0, 0, 0, 0],
     [0, 0, 0, 0, 0, 0, 0, 0],
     [0, 0, 0, 0, 0, 0, 0, 0],
     [0, 0, 0, 0, 0, 0, 0, 0],
     [0, 0, 0, 0, 0, 0, 0, 0],
     [0, 0, 0, 0, 0, 0, 0, 0],
     [0, 0, 0, 0, 0, 0, 0, 0],
     [0, 0, 0, 0, 0, 0, 0, 0],
     [0, 0, 0, 0, 0, 0, 0, 0],
     [0, 0, 0, 0, 0, 0, 0, 0],
     [0, 0, 0, 0, 0, 0, 0, 0],
     [0, 0, 0, 0, 0, 0, 0, 0],
     [0, 0, 0, 0, 0, 0, 0, 0],
     [0, 0, 0, 0, 0, 0, 0, 0],
     [0, 0, 0, 0, 0, 0, 0, 0],
     [0, 0, 0, 0, 0, 0, 0, 0],
     [0, 0, 0, 0, 0, 0, 0, 0],
     [0, 0, 0, 0, 0, 0, 0, 0],
     [0, 0, 0, 0, 0, 0, 0, 0],
     [0, 0, 0, 0, 0, 0, 0, 0],
     [0, 0, 0, 0, 0, 0, 0, 0],
     [0, 0, 0, 0, 0, 0, 0, 0],
     [0, 0, 0, 0, 0, 0, 0, 0],
     [0, 0, 0, 0, 0, 0, 0, 0],
     [0, 0, 0, 0, 0, 0, 0, 0],
     [0, 0, 0, 0, 0, 0, 0, 0],
     [0, 0, 0, 0, 0, 0, 0, 0],
     [0, 0, 0, 0, 0, 0, 0, 0],
     [0, 0, 0, 0, 0, 0, 0, 0],
     [0, 0, 0, 0, 0, 0, 0, 0],
     [0, 0, 0, 0, 0, 0, 0, 0],
     [0, 0, 0, 0, 0, 0, 0, 0],
     [0, 0, 0, 0, 0, 0, 0, 0],
     [0, 0, 0, 0, 0, 0, 0, 0],
     [0, 0, 0, 0, 0, 0, 0, 0],
     [0, 0, 0, 0, 0, 0, 0, 0],
     [0, 0, 0, 0, 0, 0, 0, 0],
     [0, 0, 0, 0, 0, 0, 0, 0],
     [0, 0, 0, 0, 0, 0, 0, 0],
     [0, 0, 0, 0, 0, 0, 0, 0],
     [0, 0, 0, 0, 0, 0, 0, 0],
     [0, 0, 0, 0, 0, 0, 0, 0],
     [0, 0, 0, 0, 0, 0, 0, 0],
     [0, 0, 0, 0, 0, 0, 0, 0],
     [0, 0, 0, 0, 0, 0, 0, 0],
     [0, 0, 0, 0, 0, 0, 0, 0],
     [0, 0, 0, 0, 0, 0, 0, 0],
     [0, 0, 0, 0, 0, 0, 0, 0],
     [0, 0, 0, 0, 0, 0, 0, 0],
     [0, 0, 0, 0, 0, 0, 0, 0],
     [0, 0, 0, 0, 0, 0, 0, 0],
     [0, 0, 0, 0, 0, 0, 0, 0],
     [0, 0, 0, 0, 0, 0, 0, 0],
     [0, 0, 0, 0, 0, 0, 0, 0],
     [0, 0, 0, 0, 0, 0, 0, 0],
     [0, 0, 0, 0, 0, 0, 0, 0],
     [0, 0, 0, 0, 0, 0, 0, 0],
     [0, 0, 0, 0, 0, 0, 0, 0],
     [0, 0, 0, 0, 0, 0, 0, 0],
     [0, 0, 0, 0, 0, 0, 0, 0],
     [0, 0, 0, 0, 0, 0, 0, 0],
     [0, 0, 0, 0, 0, 0, 0, 0],
     [0, 0, 0, 0, 0, 0, 0, 0],
     [0, 0, 0, 0, 0, 0, 0, 0],
     [0, 0, 0, 0, 0, 0, 0, 0],
     [0, 0, 0, 0, 0, 0, 0, 0],
     [0, 0, 0, 0, 0, 0, 0, 0],
     [0, 0, 0, 0, 0, 0, 0, 0],
     [0, 0, 0, 0, 0, 0, 0, 0],
     [0, 0, 0, 0, 0, 0, 0, 0],
     [0, 0, 0, 0, 0, 0, 0, 0],
     [0, 0, 0, 0, 0, 0, 0, 0],
     [0, 0, 0, 0, 0, 0, 0, 0],
     [0, 0, 0, 0, 0, 0, 0, 0],
     [0, 0, 0, 0, 0, 0, 0, 0],
     [0, 0, 0, 0, 0, 0, 0, 0],
     [0, 0, 0, 0, 0, 0, 0, 0],
     [0, 0, 0, 0, 0, 0, 0, 0],
     [0, 0, 0, 0, 0, 0, 0, 0],
     [0, 0, 0, 0, 0, 0, 0, 0],
     [0, 0, 0, 0, 0, 0, 0, 0],
     [0, 0, 0, 0, 0, 0, 0, 0],
     [0, 0, 0, 0, 0, 0, 0, 0],
     [0, 0, 0, 0, 0, 0, 0, 0],
     [0, 0, 0, 0, 0, 0, 0, 0],
     [0, 0, 0, 0, 0, 0, 0, 0],
     [0, 0, 0, 0, 0, 0, 0, 0],
     [0, 0, 0, 0, 0, 0, 0, 0],
     [0, 0, 0, 0, 0, 0, 0, 0],
     [0, 0, 0, 0, 0, 0, 0, 0],
     [0, 0, 0, 0, 0, 0, 0, 0],
     [0, 0, 0, 0, 0, 0, 0, 0],
     [0, 0, 0, 0, 0, 0, 0, 0],
     [0, 0, 0, 0, 0, 0, 0, 0],
     [0, 0, 0, 0, 0, 0, 0, 0],
     [0, 0, 0, 0, 0, 0, 0, 0],
     [0, 0, 0, 0, 0, 0, 0, 0],
     [0, 0, 0, 0, 0, 0, 0, 0],
     [0, 0, 0, 0, 0, 0, 0, 0],
     [0, 0, 0, 0, 0, 0, 0, 0],
     [0, 0, 0, 0, 0, 0, 0, 0],
     [0, 0, 0, 0, 0, 0, 0, 0],
     [0, 0, 0, 0, 0, 0, 0, 0],
     [0, 0, 0, 0, 0, 0, 0, 0],
     [0, 0, 0, 0, 0, 0, 0, 0],
     [0, 0, 0, 0, 0, 0, 0, 0],
     [0, 0, 0, 0, 0, 0, 0, 0],
     [0, 0, 0, 0, 0, 0, 0, 0],
     [0, 0, 0, 0, 0, 0, 0, 0],
     [0, 0, 0, 0, 0, 0, 0, 0],
     [0, 0, 0, 0, 0, 0, 0, 0],
     [0, 0, 0, 0, 0, 0, 0, 0],
     [0, 0, 0, 0, 0, 0, 0, 0],
     [0, 0, 0, 0, 0, 0, 0, 0],
     [0, 0, 0, 0, 0, 0, 0, 0],
     [0, 0, 0, 0, 0, 0, 0, 0],
     [0, 0, 0, 0, 0, 0, 0, 0],
     [0, 0, 0, 0, 0, 0, 0, 0]]"

definition smp_cond_offsets_3 :: "int list list" where
  "smp_cond_offsets_3 =
    [[0, 0, 0, 0, 0, 0, 0, 0],
     [0, 0, 0, 0, 0, 0, 0, 0],
     [0, 0, 0, 0, 0, 0, 0, 0],
     [0, 0, 0, 0, 0, 0, 0, 0],
     [0, 0, 0, 0, 0, 0, 0, 0],
     [0, 0, 0, 0, 0, 0, 0, 0],
     [0, 0, 0, 0, 0, 0, 0, 0],
     [0, 0, 0, 0, 0, 0, 0, 0],
     [0, 0, 0, 0, 0, 0, 0, 0],
     [0, 0, 0, 0, 0, 0, 0, 0],
     [0, 0, 0, 0, 0, 0, 0, 0],
     [0, 0, 0, 0, 0, 0, 0, 0],
     [0, 0, 0, 0, 0, 0, 0, 0],
     [0, 0, 0, 0, 0, 0, 0, 0],
     [0, 0, 0, 0, 0, 0, 0, 0],
     [0, 0, 0, 0, 0, 0, 0, 0],
     [0, 0, 0, 0, 0, 0, 0, 0],
     [0, 0, 0, 0, 0, 0, 0, 0],
     [0, 0, 0, 0, 0, 0, 0, 0],
     [0, 0, 0, 0, 0, 0, 0, 0],
     [0, 0, 0, 0, 0, 0, 0, 0],
     [0, 0, 0, 0, 0, 0, 0, 0],
     [0, 0, 0, 0, 0, 0, 0, 0],
     [0, 0, 0, 0, 0, 0, 0, 0],
     [0, 0, 0, 0, 0, 0, 0, 0],
     [0, 0, 0, 0, 0, 0, 0, 0],
     [0, 0, 0, 0, 0, 0, 0, 0],
     [0, 0, 0, 0, 0, 0, 0, 0],
     [0, 0, 0, 0, 0, 0, 0, 0],
     [0, 0, 0, 0, 0, 0, 0, 0],
     [0, 0, 0, 0, 0, 0, 0, 0],
     [0, 0, 0, 0, 0, 0, 0, 0],
     [0, 0, 0, 0, 0, 0, 0, 0],
     [0, 0, 0, 0, 0, 0, 0, 0],
     [0, 0, 0, 0, 0, 0, 0, 0],
     [0, 0, 0, 0, 0, 0, 0, 0],
     [0, 0, 0, 0, 0, 0, 0, 0],
     [0, 0, 0, 0, 0, 0, 0, 0],
     [0, 0, 0, 0, 0, 0, 0, 0],
     [0, 0, 0, 0, 0, 0, 0, 0],
     [0, 0, 0, 0, 0, 0, 0, 0],
     [0, 0, 0, 0, 0, 0, 0, 0],
     [0, 0, 0, 0, 0, 0, 0, 0],
     [0, 0, 0, 0, 0, 0, 0, 0],
     [0, 0, 0, 0, 0, 0, 0, 0],
     [0, 0, 0, 0, 0, 0, 0, 0],
     [0, 0, 0, 0, 0, 0, 0, 0],
     [0, 0, 0, 0, 0, 0, 0, 0],
     [0, 0, 0, 0, 0, 0, 0, 0],
     [0, 0, 0, 0, 0, 0, 0, 0],
     [0, 0, 0, 0, 0, 0, 0, 0],
     [0, 0, 0, 0, 0, 0, 0, 0],
     [0, 0, 0, 0, 0, 0, 0, 0],
     [0, 0, 0, 0, 0, 0, 0, 0],
     [0, 0, 0, 0, 0, 0, 0, 0],
     [0, 0, 0, 0, 0, 0, 0, 0],
     [0, 0, 0, 0, 0, 0, 0, 0],
     [0, 0, 0, 0, 0, 0, 0, 0],
     [0, 0, 0, 0, 0, 0, 0, 0],
     [0, 0, 0, 0, 0, 0, 0, 0],
     [0, 0, 0, 0, 0, 0, 0, 0],
     [0, 0, 0, 0, 0, 0, 0, 0],
     [0, 0, 0, 0, 0, 0, 0, 0],
     [0, 0, 0, 0, 0, 0, 0, 0],
     [0, 0, 0, 0, 0, 0, 0, 0],
     [0, 0, 0, 0, 0, 0, 0, 0],
     [0, 0, 0, 0, 0, 0, 0, 0],
     [0, 0, 0, 0, 0, 0, 0, 0],
     [0, 0, 0, 0, 0, 0, 0, 0],
     [0, 0, 0, 0, 0, 0, 0, 0],
     [0, 0, 0, 0, 0, 0, 0, 0],
     [0, 0, 0, 0, 0, 0, 0, 0],
     [0, 0, 0, 0, 0, 0, 0, 0],
     [0, 0, 0, 0, 0, 0, 0, 0],
     [0, 0, 0, 0, 0, 0, 0, 0],
     [0, 0, 0, 0, 0, 0, 0, 0],
     [0, 0, 0, 0, 0, 0, 0, 0],
     [0, 0, 0, 0, 0, 0, 0, 0],
     [0, 0, 0, 0, 0, 0, 0, 0],
     [0, 0, 0, 0, 0, 0, 0, 0],
     [0, 0, 0, 0, 0, 0, 0, 0],
     [0, 0, 0, 0, 0, 0, 0, 0],
     [0, 0, 0, 0, 0, 0, 0, 0],
     [0, 0, 0, 0, 0, 0, 0, 0],
     [0, 0, 0, 0, 0, 0, 0, 0],
     [0, 0, 0, 0, 0, 0, 0, 0],
     [0, 0, 0, 0, 0, 0, 0, 0],
     [0, 0, 0, 0, 0, 0, 0, 0],
     [0, 0, 0, 0, 0, 0, 0, 0],
     [0, 0, 0, 0, 0, 0, 0, 0],
     [0, 0, 0, 0, 0, 0, 0, 0],
     [0, 0, 0, 0, 0, 0, 0, 0],
     [0, 0, 0, 0, 0, 0, 0, 0],
     [0, 0, 0, 0, 0, 0, 0, 0],
     [0, 0, 0, 0, 0, 0, 0, 0],
     [0, 0, 0, 0, 0, 0, 0, 0],
     [0, 0, 0, 0, 0, 0, 0, 0],
     [0, 0, 0, 0, 0, 0, 0, 0],
     [0, 0, 0, 0, 0, 0, 0, 0],
     [0, 0, 0, 0, 0, 0, 0, 0],
     [0, 0, 0, 0, 0, 0, 0, 0],
     [0, 0, 0, 0, 0, 0, 0, 0],
     [0, 0, 0, 0, 0, 0, 0, 0],
     [0, 0, 0, 0, 0, 0, 0, 0],
     [0, 0, 0, 0, 0, 0, 0, 0],
     [0, 0, 0, 0, 0, 0, 0, 0],
     [0, 0, 0, 0, 0, 0, 0, 0],
     [0, 0, 0, 0, 0, 0, 0, 0],
     [0, 0, 0, 0, 0, 0, 0, 0],
     [0, 0, 0, 0, 0, 0, 0, 0],
     [0, 0, 0, 0, 0, 0, 0, 0],
     [0, 0, 0, 0, 0, 0, 0, 0],
     [0, 0, 0, 0, 0, 0, 0, 0],
     [0, 0, 0, 0, 0, 0, 0, 0],
     [0, 0, 0, 0, 0, 0, 0, 0],
     [0, 0, 0, 0, 0, 0, 0, 0],
     [0, 0, 0, 0, 0, 0, 0, 0],
     [0, 0, 0, 0, 0, 0, 0, 0],
     [0, 0, 0, 0, 0, 0, 0, 0],
     [0, 0, 0, 0, 0, 0, 0, 0],
     [0, 0, 0, 0, 0, 0, 0, 0],
     [0, 0, 0, 0, 0, 0, 0, 0],
     [0, 0, 0, 0, 0, 0, 0, 0],
     [0, 0, 0, 0, 0, 0, 0, 0],
     [0, 0, 0, 0, 0, 0, 0, 0],
     [0, 0, 0, 0, 0, 0, 0, 0],
     [0, 0, 0, 0, 0, 0, 0, 0],
     [0, 0, 0, 0, 0, 0, 0, 0],
     [0, 0, 0, 0, 0, 0, 0, 0],
     [0, 0, 0, 0, 0, 0, 0, 0],
     [0, 0, 0, 0, 0, 0, 0, 0],
     [0, 0, 0, 0, 0, 0, 0, 0],
     [0, 0, 0, 0, 0, 0, 0, 0],
     [0, 0, 0, 0, 0, 0, 0, 0],
     [0, 0, 0, 0, 0, 0, 0, 0],
     [0, 0, 0, 0, 0, 0, 0, 0],
     [0, 0, 0, 0, 0, 0, 0, 0],
     [0, 0, 0, 0, 0, 0, 0, 0],
     [0, 0, 0, 0, 0, 0, 0, 0],
     [0, 0, 0, 0, 0, 0, 0, 0],
     [0, 0, 0, 0, 0, 0, 0, 0],
     [0, 0, 0, 0, 0, 0, 0, 0],
     [0, 0, 0, 0, 0, 0, 0, 0],
     [0, 0, 0, 0, 0, 0, 0, 0],
     [0, 0, 0, 0, 0, 0, 0, 0],
     [0, 0, 0, 0, 0, 0, 0, 0],
     [0, 0, 0, 0, 0, 0, 0, 0],
     [0, 0, 0, 0, 0, 0, 0, 0],
     [0, 0, 0, 0, 0, 0, 0, 0],
     [0, 0, 0, 0, 0, 0, 0, 0]]"

definition smp_cond_offsets_4 :: "int list list" where
  "smp_cond_offsets_4 =
    [[0, 0, 0, 0, 0, 0, 0, 0],
     [0, 0, 0, 0, 0, 0, 0, 0],
     [0, 0, 0, 0, 0, 0, 0, 0],
     [0, 0, 0, 0, 0, 0, 0, 0],
     [0, 0, 0, 0, 0, 0, 0, 0],
     [0, 0, 0, 0, 0, 0, 0, 0],
     [0, 0, 0, 0, 0, 0, 0, 0],
     [0, 0, 0, 0, 0, 0, 0, 0],
     [0, 0, 0, 0, 0, 0, 0, 0],
     [0, 0, 0, 0, 0, 0, 0, 0],
     [0, 0, 0, 0, 0, 0, 0, 0],
     [0, 0, 0, 0, 0, 0, 0, 0],
     [0, 0, 0, 0, 0, 0, 0, 0],
     [0, 0, 0, 0, 0, 0, 0, 0],
     [0, 0, 0, 0, 0, 0, 0, 0],
     [0, 0, 0, 0, 0, 0, 0, 0],
     [0, 0, 0, 0, 0, 0, 0, 0],
     [0, 0, 0, 0, 0, 0, 0, 0],
     [0, 0, 0, 0, 0, 0, 0, 0],
     [0, 0, 0, 0, 0, 0, 0, 0],
     [0, 0, 0, 0, 0, 0, 0, 0],
     [0, 0, 0, 0, 0, 0, 0, 0],
     [0, 0, 0, 0, 0, 0, 0, 0],
     [0, 0, 0, 0, 0, 0, 0, 0],
     [0, 0, 0, 0, 0, 0, 0, 0],
     [0, 0, 0, 0, 0, 0, 0, 0],
     [0, 0, 0, 0, 0, 0, 0, 0],
     [0, 0, 0, 0, 0, 0, 0, 0],
     [0, 0, 0, 0, 0, 0, 0, 0],
     [0, 0, 0, 0, 0, 0, 0, 0],
     [0, 0, 0, 0, 0, 0, 0, 0],
     [0, 0, 0, 0, 0, 0, 0, 0],
     [0, 0, 0, 0, 0, 0, 0, 0],
     [0, 0, 0, 0, 0, 0, 0, 0],
     [0, 0, 0, 0, 0, 0, 0, 0],
     [0, 0, 0, 0, 0, 0, 0, 0],
     [0, 0, 0, 0, 0, 0, 0, 0],
     [0, 0, 0, 0, 0, 0, 0, 0],
     [0, 0, 0, 0, 0, 0, 0, 0],
     [0, 0, 0, 0, 0, 0, 0, 0],
     [0, 0, 0, 0, 0, 0, 0, 0],
     [0, 0, 0, 0, 0, 0, 0, 0],
     [0, 0, 0, 0, 0, 0, 0, 0],
     [0, 0, 0, 0, 0, 0, 0, 0],
     [0, 0, 0, 0, 0, 0, 0, 0],
     [0, 0, 0, 0, 0, 0, 0, 0],
     [0, 0, 0, 0, 0, 0, 0, 0],
     [0, 0, 0, 0, 0, 0, 0, 0],
     [0, 0, 0, 0, 0, 0, 0, 0],
     [0, 0, 0, 0, 0, 0, 0, 0],
     [0, 0, 0, 0, 0, 0, 0, 0],
     [0, 0, 0, 0, 0, 0, 0, 0],
     [0, 0, 0, 0, 0, 0, 0, 0],
     [0, 0, 0, 0, 0, 0, 0, 0],
     [0, 0, 0, 0, 0, 0, 0, 0],
     [0, 0, 0, 0, 0, 0, 0, 0],
     [0, 0, 0, 0, 0, 0, 0, 0],
     [0, 0, 0, 0, 0, 0, 0, 0],
     [0, 0, 0, 0, 0, 0, 0, 0],
     [0, 0, 0, 0, 0, 0, 0, 0],
     [0, 0, 0, 0, 0, 0, 0, 0],
     [0, 0, 0, 0, 0, 0, 0, 0],
     [0, 0, 0, 0, 0, 0, 0, 0],
     [0, 0, 0, 0, 0, 0, 0, 0],
     [0, 0, 0, 0, 0, 0, 0, 0],
     [0, 0, 0, 0, 0, 0, 0, 0],
     [0, 0, 0, 0, 0, 0, 0, 0],
     [0, 0, 0, 0, 0, 0, 0, 0],
     [0, 0, 0, 0, 0, 0, 0, 0],
     [0, 0, 0, 0, 0, 0, 0, 0],
     [0, 0, 0, 0, 0, 0, 0, 0],
     [0, 0, 0, 0, 0, 0, 0, 0],
     [0, 0, 0, 0, 0, 0, 0, 0],
     [0, 0, 0, 0, 0, 0, 0, 0],
     [0, 0, 0, 0, 0, 0, 0, 0],
     [0, 0, 0, 0, 0, 0, 0, 0],
     [0, 0, 0, 0, 0, 0, 0, 0],
     [0, 0, 0, 0, 0, 0, 0, 0],
     [0, 0, 0, 0, 0, 0, 0, 0],
     [0, 0, 0, 0, 0, 0, 0, 0],
     [0, 0, 0, 0, 0, 0, 0, 0],
     [0, 0, 0, 0, 0, 0, 0, 0],
     [0, 0, 0, 0, 0, 0, 0, 0],
     [0, 0, 0, 0, 0, 0, 0, 0],
     [0, 0, 0, 0, 0, 0, 0, 0],
     [0, 0, 0, 0, 0, 0, 0, 0],
     [0, 0, 0, 0, 0, 0, 0, 0],
     [0, 0, 0, 0, 0, 0, 0, 0],
     [0, 0, 0, 0, 0, 0, 0, 0],
     [0, 0, 0, 0, 0, 0, 0, 0],
     [0, 0, 0, 0, 0, 0, 0, 0],
     [0, 0, 0, 0, 0, 0, 0, 0],
     [0, 0, 0, 0, 0, 0, 0, 0],
     [0, 0, 0, 0, 0, 0, 0, 0],
     [0, 0, 0, 0, 0, 0, 0, 0],
     [0, 0, 0, 0, 0, 0, 0, 0],
     [0, 0, 0, 0, 0, 0, 0, 0],
     [0, 0, 0, 0, 0, 0, 0, 0],
     [0, 0, 0, 0, 0, 0, 0, 0],
     [0, 0, 0, 0, 0, 0, 0, 0],
     [0, 0, 0, 0, 0, 0, 0, 0],
     [0, 0, 0, 0, 0, 0, 0, 0],
     [0, 0, 0, 0, 0, 0, 0, 0],
     [0, 0, 0, 0, 0, 0, 0, 0],
     [0, 0, 0, 0, 0, 0, 0, 0],
     [0, 0, 0, 0, 0, 0, 0, 0],
     [0, 0, 0, 0, 0, 0, 0, 0],
     [0, 0, 0, 0, 0, 0, 0, 0],
     [0, 0, 0, 0, 0, 0, 0, 0],
     [0, 0, 0, 0, 0, 0, 0, 0],
     [0, 0, 0, 0, 0, 0, 0, 0],
     [0, 0, 0, 0, 0, 0, 0, 0],
     [0, 0, 0, 0, 0, 0, 0, 0],
     [0, 0, 0, 0, 0, 0, 0, 0],
     [0, 0, 0, 0, 0, 0, 0, 0],
     [0, 0, 0, 0, 0, 0, 0, 0],
     [0, 0, 0, 0, 0, 0, 0, 0],
     [0, 0, 0, 0, 0, 0, 0, 0],
     [0, 0, 0, 0, 0, 0, 0, 0],
     [0, 0, 0, 0, 0, 0, 0, 0],
     [0, 0, 0, 0, 0, 0, 0, 0],
     [0, 0, 0, 0, 0, 0, 0, 0],
     [0, 0, 0, 0, 0, 0, 0, 0],
     [0, 0, 0, 0, 0, 0, 0, 0],
     [0, 0, 0, 0, 0, 0, 0, 0],
     [0, 0, 0, 0, 0, 0, 0, 0],
     [0, 0, 0, 0, 0, 0, 0, 0],
     [0, 0, 0, 0, 0, 0, 0, 0],
     [0, 0, 0, 0, 0, 0, 0, 0],
     [0, 0, 0, 0, 0, 0, 0, 0],
     [0, 0, 0, 0, 0, 0, 0, 0],
     [0, 0, 0, 0, 0, 0, 0, 0],
     [0, 0, 0, 0, 0, 0, 0, 0],
     [0, 0, 0, 0, 0, 0, 0, 0],
     [0, 0, 0, 0, 0, 0, 0, 0],
     [0, 0, 0, 0, 0, 0, 0, 0],
     [0, 0, 0, 0, 0, 0, 0, 0],
     [0, 0, 0, 0, 0, 0, 0, 0],
     [0, 0, 0, 0, 0, 0, 0, 0],
     [0, 0, 0, 0, 0, 0, 0, 0],
     [0, 0, 0, 0, 0, 0, 0, 0],
     [0, 0, 0, 0, 0, 0, 0, 0],
     [0, 0, 0, 0, 0, 0, 0, 0],
     [0, 0, 0, 0, 0, 0, 0, 0],
     [0, 0, 0, 0, 0, 0, 0, 0],
     [0, 0, 0, 0, 0, 0, 0, 0],
     [0, 0, 0, 0, 0, 0, 0, 0],
     [0, 0, 0, 0, 0, 0, 0, 0],
     [0, 0, 0, 0, 0, 0, 0, 0],
     [0, 0, 0, 0, 0, 0, 0, 0]]"

definition smp_cond_offsets_5 :: "int list list" where
  "smp_cond_offsets_5 =
    [[0, 0, 0, 0, 0, 0, 0, 0],
     [0, 0, 0, 0, 0, 0, 0, 0],
     [0, 0, 0, 0, 0, 0, 0, 0],
     [0, 0, 0, 0, 0, 0, 0, 0],
     [0, 0, 0, 0, 0, 0, 0, 0],
     [0, 0, 0, 0, 0, 0, 0, 0],
     [0, 0, 0, 0, 0, 0, 0, 0],
     [0, 0, 0, 0, 0, 0, 0, 0],
     [0, 0, 0, 0, 0, 0, 0, 0],
     [0, 0, 0, 0, 0, 0, 0, 0],
     [0, 0, 0, 0, 0, 0, 0, 0],
     [0, 0, 0, 0, 0, 0, 0, 0],
     [0, 0, 0, 0, 0, 0, 0, 0],
     [0, 0, 0, 0, 0, 0, 0, 0],
     [0, 0, 0, 0, 0, 0, 0, 0],
     [0, 0, 0, 0, 0, 0, 0, 0],
     [0, 0, 0, 0, 0, 0, 0, 0],
     [0, 0, 0, 0, 0, 0, 0, 0],
     [0, 0, 0, 0, 0, 0, 0, 0],
     [0, 0, 0, 0, 0, 0, 0, 0],
     [0, 0, 0, 0, 0, 0, 0, 0],
     [0, 0, 0, 0, 0, 0, 0, 0],
     [0, 0, 0, 0, 0, 0, 0, 0],
     [0, 0, 0, 0, 0, 0, 0, 0],
     [0, 0, 0, 0, 0, 0, 0, 0],
     [0, 0, 0, 0, 0, 0, 0, 0],
     [0, 0, 0, 0, 0, 0, 0, 0],
     [0, 0, 0, 0, 0, 0, 0, 0],
     [0, 0, 0, 0, 0, 0, 0, 0],
     [0, 0, 0, 0, 0, 0, 0, 0],
     [0, 0, 0, 0, 0, 0, 0, 0],
     [0, 0, 0, 0, 0, 0, 0, 0],
     [0, 0, 0, 0, 0, 0, 0, 0],
     [0, 0, 0, 0, 0, 0, 0, 0],
     [0, 0, 0, 0, 0, 0, 0, 0],
     [0, 0, 0, 0, 0, 0, 0, 0],
     [0, 0, 0, 0, 0, 0, 0, 0],
     [0, 0, 0, 0, 0, 0, 0, 0],
     [0, 0, 0, 0, 0, 0, 0, 0],
     [0, 0, 0, 0, 0, 0, 0, 0],
     [0, 0, 0, 0, 0, 0, 0, 0],
     [0, 0, 0, 0, 0, 0, 0, 0],
     [0, 0, 0, 0, 0, 0, 0, 0],
     [0, 0, 0, 0, 0, 0, 0, 0],
     [0, 0, 0, 0, 0, 0, 0, 0],
     [0, 0, 0, 0, 0, 0, 0, 0],
     [0, 0, 0, 0, 0, 0, 0, 0],
     [0, 0, 0, 0, 0, 0, 0, 0],
     [0, 0, 0, 0, 0, 0, 0, 0],
     [0, 0, 0, 0, 0, 0, 0, 0],
     [0, 0, 0, 0, 0, 0, 0, 0],
     [0, 0, 0, 0, 0, 0, 0, 0],
     [0, 0, 0, 0, 0, 0, 0, 0],
     [0, 0, 0, 0, 0, 0, 0, 0],
     [0, 0, 0, 0, 0, 0, 0, 0],
     [0, 0, 0, 0, 0, 0, 0, 0],
     [0, 0, 0, 0, 0, 0, 0, 0],
     [0, 0, 0, 0, 0, 0, 0, 0],
     [0, 0, 0, 0, 0, 0, 0, 0],
     [0, 0, 0, 0, 0, 0, 0, 0],
     [0, 0, 0, 0, 0, 0, 0, 0],
     [0, 0, 0, 0, 0, 0, 0, 0],
     [0, 0, 0, 0, 0, 0, 0, 0],
     [0, 0, 0, 0, 0, 0, 0, 0],
     [0, 0, 0, 0, 0, 0, 0, 0],
     [0, 0, 0, 0, 0, 0, 0, 0],
     [0, 0, 0, 0, 0, 0, 0, 0],
     [0, 0, 0, 0, 0, 0, 0, 0],
     [0, 0, 0, 0, 0, 0, 0, 0],
     [0, 0, 0, 0, 0, 0, 0, 0],
     [0, 0, 0, 0, 0, 0, 0, 0],
     [0, 0, 0, 0, 0, 0, 0, 0],
     [0, 0, 0, 0, 0, 0, 0, 0],
     [0, 0, 0, 0, 0, 0, 0, 0],
     [0, 0, 0, 0, 0, 0, 0, 0],
     [0, 0, 0, 0, 0, 0, 0, 0],
     [0, 0, 0, 0, 0, 0, 0, 0],
     [0, 0, 0, 0, 0, 0, 0, 0],
     [0, 0, 0, 0, 0, 0, 0, 0],
     [0, 0, 0, 0, 0, 0, 0, 0],
     [0, 0, 0, 0, 0, 0, 0, 0],
     [0, 0, 0, 0, 0, 0, 0, 0],
     [0, 0, 0, 0, 0, 0, 0, 0],
     [0, 0, 0, 0, 0, 0, 0, 0],
     [0, 0, 0, 0, 0, 0, 0, 0],
     [0, 0, 0, 0, 0, 0, 0, 0],
     [0, 0, 0, 0, 0, 0, 0, 0],
     [0, 0, 0, 0, 0, 0, 0, 0],
     [0, 0, 0, 0, 0, 0, 0, 0],
     [0, 0, 0, 0, 0, 0, 0, 0],
     [0, 0, 0, 0, 0, 0, 0, 0],
     [0, 0, 0, 0, 0, 0, 0, 0],
     [0, 0, 0, 0, 0, 0, 0, 0],
     [0, 0, 0, 0, 0, 0, 0, 0],
     [0, 0, 0, 0, 0, 0, 0, 0],
     [0, 0, 0, 0, 0, 0, 0, 0],
     [0, 0, 0, 0, 0, 0, 0, 0],
     [0, 0, 0, 0, 0, 0, 0, 0],
     [0, 0, 0, 0, 0, 0, 0, 0],
     [0, 0, 0, 0, 0, 0, 0, 0],
     [0, 0, 0, 0, 0, 0, 0, 0],
     [0, 0, 0, 0, 0, 0, 0, 0],
     [0, 0, 0, 0, 0, 0, 0, 0],
     [0, 0, 0, 0, 0, 0, 0, 0],
     [0, 0, 0, 0, 0, 0, 0, 0],
     [0, 0, 0, 0, 0, 0, 0, 0],
     [0, 0, 0, 0, 0, 0, 0, 0],
     [0, 0, 0, 0, 0, 0, 0, 0],
     [0, 0, 0, 0, 0, 0, 0, 0],
     [0, 0, 0, 0, 0, 0, 0, 0],
     [0, 0, 0, 0, 0, 0, 0, 0],
     [0, 0, 0, 0, 0, 0, 0, 0],
     [0, 0, 0, 0, 0, 0, 0, 0],
     [0, 0, 0, 0, 0, 0, 0, 0],
     [0, 0, 0, 0, 0, 0, 0, 0],
     [0, 0, 0, 0, 0, 0, 0, 0],
     [0, 0, 0, 0, 0, 0, 0, 0],
     [0, 0, 0, 0, 0, 0, 0, 0],
     [0, 0, 0, 0, 0, 0, 0, 0],
     [0, 0, 0, 0, 0, 0, 0, 0],
     [0, 0, 0, 0, 0, 0, 0, 0],
     [0, 0, 0, 0, 0, 0, 0, 0],
     [0, 0, 0, 0, 0, 0, 0, 0],
     [0, 0, 0, 0, 0, 0, 0, 0],
     [0, 0, 0, 0, 0, 0, 0, 0],
     [0, 0, 0, 0, 0, 0, 0, 0],
     [0, 0, 0, 0, 0, 0, 0, 0],
     [0, 0, 0, 0, 0, 0, 0, 0],
     [0, 0, 0, 0, 0, 0, 0, 0],
     [0, 0, 0, 0, 0, 0, 0, 0],
     [0, 0, 0, 0, 0, 0, 0, 0],
     [0, 0, 0, 0, 0, 0, 0, 0],
     [0, 0, 0, 0, 0, 0, 0, 0],
     [0, 0, 0, 0, 0, 0, 0, 0],
     [0, 0, 0, 0, 0, 0, 0, 0],
     [0, 0, 0, 0, 0, 0, 0, 0],
     [0, 0, 0, 0, 0, 0, 0, 0],
     [0, 0, 0, 0, 0, 0, 0, 0],
     [0, 0, 0, 0, 0, 0, 0, 0],
     [0, 0, 0, 0, 0, 0, 0, 0],
     [0, 0, 0, 0, 0, 0, 0, 0],
     [0, 0, 0, 0, 0, 0, 0, 0],
     [0, 0, 0, 0, 0, 0, 0, 0],
     [0, 0, 0, 0, 0, 0, 0, 0],
     [0, 0, 0, 0, 0, 0, 0, 0],
     [0, 0, 0, 0, 0, 0, 0, 0],
     [0, 0, 0, 0, 0, 0, 0, 0],
     [0, 0, 0, 0, 0, 0, 0, 0],
     [0, 0, 0, 0, 0, 0, 0, 0],
     [0, 0, 0, 0, 0, 0, 0, 0]]"

definition smp_cond_offsets_6 :: "int list list" where
  "smp_cond_offsets_6 =
    [[0, 0, 0, 0, 0, 0, 0, 0],
     [0, 0, 0, 0, 0, 0, 0, 0],
     [0, 0, 0, 0, 0, 0, 0, 0],
     [0, 0, 0, 0, 0, 0, 0, 0],
     [0, 0, 0, 0, 0, 0, 0, 0],
     [0, 0, 0, 0, 0, 0, 0, 0],
     [0, 0, 0, 0, 0, 0, 0, 0],
     [0, 0, 0, 0, 0, 0, 0, 0],
     [0, 0, 0, 0, 0, 0, 0, 0],
     [0, 0, 0, 0, 0, 0, 0, 0],
     [0, 0, 0, 0, 0, 0, 0, 0],
     [0, 0, 0, 0, 0, 0, 0, 0],
     [0, 0, 0, 0, 0, 0, 0, 0],
     [0, 0, 0, 0, 0, 0, 0, 0],
     [0, 0, 0, 0, 0, 0, 0, 0],
     [0, 0, 0, 0, 0, 0, 0, 0],
     [0, 0, 0, 0, 0, 0, 0, 0],
     [0, 0, 0, 0, 0, 0, 0, 0],
     [0, 0, 0, 0, 0, 0, 0, 0],
     [0, 0, 0, 0, 0, 0, 0, 0],
     [0, 0, 0, 0, 0, 0, 0, 0],
     [0, 0, 0, 0, 0, 0, 0, 0],
     [0, 0, 0, 0, 0, 0, 0, 0],
     [0, 0, 0, 0, 0, 0, 0, 0],
     [0, 0, 0, 0, 0, 0, 0, 0],
     [0, 0, 0, 0, 0, 0, 0, 0],
     [0, 0, 0, 0, 0, 0, 0, 0],
     [0, 0, 0, 0, 0, 0, 0, 0],
     [0, 0, 0, 0, 0, 0, 0, 0],
     [0, 0, 0, 0, 0, 0, 0, 0],
     [0, 0, 0, 0, 0, 0, 0, 0],
     [0, 0, 0, 0, 0, 0, 0, 0],
     [0, 0, 0, 0, 0, 0, 0, 0],
     [0, 0, 0, 0, 0, 0, 0, 0],
     [0, 0, 0, 0, 0, 0, 0, 0],
     [0, 0, 0, 0, 0, 0, 0, 0],
     [0, 0, 0, 0, 0, 0, 0, 0],
     [0, 0, 0, 0, 0, 0, 0, 0],
     [0, 0, 0, 0, 0, 0, 0, 0],
     [0, 0, 0, 0, 0, 0, 0, 0],
     [0, 0, 0, 0, 0, 0, 0, 0],
     [0, 0, 0, 0, 0, 0, 0, 0],
     [0, 0, 0, 0, 0, 0, 0, 0],
     [0, 0, 0, 0, 0, 0, 0, 0],
     [0, 0, 0, 0, 0, 0, 0, 0],
     [0, 0, 0, 0, 0, 0, 0, 0],
     [0, 0, 0, 0, 0, 0, 0, 0],
     [0, 0, 0, 0, 0, 0, 0, 0],
     [0, 0, 0, 0, 0, 0, 0, 0],
     [0, 0, 0, 0, 0, 0, 0, 0],
     [0, 0, 0, 0, 0, 0, 0, 0],
     [0, 0, 0, 0, 0, 0, 0, 0],
     [0, 0, 0, 0, 0, 0, 0, 0],
     [0, 0, 0, 0, 0, 0, 0, 0],
     [0, 0, 0, 0, 0, 0, 0, 0],
     [0, 0, 0, 0, 0, 0, 0, 0],
     [0, 0, 0, 0, 0, 0, 0, 0],
     [0, 0, 0, 0, 0, 0, 0, 0],
     [0, 0, 0, 0, 0, 0, 0, 0],
     [0, 0, 0, 0, 0, 0, 0, 0],
     [0, 0, 0, 0, 0, 0, 0, 0],
     [0, 0, 0, 0, 0, 0, 0, 0],
     [0, 0, 0, 0, 0, 0, 0, 0],
     [0, 0, 0, 0, 0, 0, 0, 0],
     [0, 0, 0, 0, 0, 0, 0, 0],
     [0, 0, 0, 0, 0, 0, 0, 0],
     [0, 0, 0, 0, 0, 0, 0, 0],
     [0, 0, 0, 0, 0, 0, 0, 0],
     [0, 0, 0, 0, 0, 0, 0, 0],
     [0, 0, 0, 0, 0, 0, 0, 0],
     [0, 0, 0, 0, 0, 0, 0, 0],
     [0, 0, 0, 0, 0, 0, 0, 0],
     [0, 0, 0, 0, 0, 0, 0, 0],
     [0, 0, 0, 0, 0, 0, 0, 0],
     [0, 0, 0, 0, 0, 0, 0, 0],
     [0, 0, 0, 0, 0, 0, 0, 0],
     [0, 0, 0, 0, 0, 0, 0, 0],
     [0, 0, 0, 0, 0, 0, 0, 0],
     [0, 0, 0, 0, 0, 0, 0, 0],
     [0, 0, 0, 0, 0, 0, 0, 28],
     [28, 28, 56, 69, 84, 99, 112, 127],
     [142, 155, 169, 184, 199, 214, 229, 242],
     [257, 274, 289, 302, 317, 332, 347, 360],
     [375, 390, 405, 419, 434, 449, 462, 477],
     [492, 507, 522, 537, 550, 565, 580, 595],
     [610, 625, 640, 653, 670, 684, 699, 714],
     [727, 746, 761, 776, 791, 806, 819, 834],
     [847, 862, 875, 890, 906, 921, 936, 949],
     [964, 979, 994, 1009, 1024, 1037, 1053, 1068],
     [1083, 1098, 1111, 1126, 1141, 1156, 1171, 1186],
     [1201, 1216, 1229, 1244, 1259, 1273, 1288, 1303],
     [1316, 1329, 1329, 1329, 1329, 1329, 1329, 1329],
     [1329, 1329, 1329, 1329, 1329, 1329, 1329, 1329],
     [1329, 1329, 1329, 1329, 1329, 1329, 1329, 1329],
     [1329, 1329, 1329, 1329, 1329, 1329, 1329, 1329],
     [1329, 1329, 1329, 1329, 1329, 1329, 1329, 1329],
     [1329, 1329, 1329, 1329, 1329, 1329, 1329, 1329],
     [1329, 1329, 1329, 1329, 1329, 1329, 1329, 1329],
     [1329, 1329, 1329, 1329, 1329, 1329, 1329, 1329],
     [1329, 1329, 1329, 1329, 1329, 1329, 1329, 1329],
     [1329, 1329, 1329, 1329, 1329, 1329, 1329, 1329],
     [1329, 1329, 1329, 1329, 1329, 1329, 1329, 1329],
     [1329, 1329, 1329, 1329, 1329, 1329, 1329, 1329],
     [1329, 1329, 1329, 1329, 1329, 1329, 1329, 1329],
     [1329, 1329, 1329, 1329, 1329, 1329, 1329, 1329],
     [1329, 1329, 1329, 1329, 1329, 1329, 1329, 1329],
     [1329, 1329, 1329, 1329, 1329, 1329, 1329, 1329],
     [1329, 1329, 1329, 1329, 1329, 1329, 1329, 1329],
     [1329, 1329, 1329, 1329, 1329, 1329, 1329, 1329],
     [1329, 1329, 1329, 1329, 1329, 1329, 1329, 1329],
     [1329, 1329, 1329, 1329, 1329, 1329, 1329, 1329],
     [1329, 1329, 1329, 1329, 1329, 1329, 1329, 1329],
     [1329, 1329, 1329, 1329, 1329, 1329, 1329, 1329],
     [1329, 1329, 1329, 1329, 1329, 1329, 1329, 1329],
     [1329, 1329, 1329, 1329, 1329, 1329, 1329, 1329],
     [1329, 1329, 1329, 1329, 1329, 1329, 1329, 1329],
     [1329, 1329, 1329, 1329, 1329, 1329, 1329, 1329],
     [1329, 1329, 1329, 1329, 1329, 1329, 1329, 1329],
     [1329, 1329, 1329, 1329, 1329, 1329, 1329, 1329],
     [1329, 1329, 1329, 1329, 1329, 1329, 1329, 1329],
     [1329, 1329, 1329, 1329, 1329, 1329, 1329, 1329],
     [1329, 1329, 1329, 1329, 1329, 1329, 1329, 1329],
     [1329, 1329, 1329, 1329, 1329, 1329, 1329, 1329],
     [1329, 1329, 1329, 1329, 1329, 1329, 1329, 1329],
     [1329, 1329, 1329, 1329, 1329, 1329, 1329, 1329],
     [1329, 1329, 1329, 1329, 1329, 1329, 1329, 1329],
     [1329, 1329, 1329, 1329, 1329, 1329, 1329, 1329],
     [1329, 1329, 1329, 1329, 1329, 1329, 1329, 1329],
     [1329, 1329, 1329, 1329, 1329, 1329, 1329, 1329],
     [1329, 1329, 1329, 1329, 1329, 1329, 1329, 1329],
     [1329, 1329, 1329, 1329, 1329, 1329, 1329, 1329],
     [1329, 1329, 1329, 1329, 1329, 1329, 1329, 1329],
     [1329, 1329, 1329, 1329, 1329, 1329, 1329, 1329],
     [1329, 1329, 1329, 1329, 1329, 1329, 1329, 1329],
     [1329, 1329, 1329, 1329, 1329, 1329, 1329, 1329],
     [1329, 1329, 1329, 1329, 1329, 1329, 1329, 1329],
     [1329, 1329, 1329, 1329, 1329, 1329, 1329, 1329],
     [1329, 1329, 1329, 1329, 1329, 1329, 1329, 1329],
     [1329, 1329, 1329, 1329, 1329, 1329, 1329, 1329],
     [1329, 1329, 1329, 1329, 1329, 1329, 1329, 1329],
     [1329, 1329, 1329, 1329, 1329, 1329, 1329, 1329],
     [1329, 1329, 1329, 1329, 1329, 1329, 1329, 1329],
     [1329, 1329, 1329, 1329, 1329, 1329, 1329, 1329],
     [1329, 1329, 1329, 1329, 1329, 1329, 1329, 1329],
     [1329, 1329, 1329, 1329, 1329, 1329, 1329, 1329],
     [1329, 1329, 1329, 1329, 1329, 1329, 1329, 1329],
     [1329, 1329, 1329, 1329, 1329, 1329, 1329, 1329],
     [1329, 1329, 1329, 1329, 1329, 1329, 1329, 1329],
     [1329, 1329, 1329, 1329, 1329, 1329, 1329, 1329],
     [1329, 1329, 1329, 1329, 1329, 1329, 1329, 1329]]"

definition smp_cond_offsets_7 :: "int list list" where
  "smp_cond_offsets_7 =
    [[1329, 1329, 1329, 1329, 1329, 1329, 1329, 1329],
     [1329, 1329, 1329, 1329, 1329, 1329, 1329, 1329],
     [1329, 1329, 1329, 1329, 1329, 1329, 1329, 1329],
     [1329, 1329, 1329, 1329, 1329, 1329, 1329, 1329],
     [1329, 1329, 1329, 1329, 1329, 1329, 1329, 1329],
     [1329, 1329, 1329, 1329, 1329, 1329, 1329, 1329],
     [1329, 1329, 1329, 1329, 1329, 1329, 1329, 1329],
     [1329, 1329, 1329, 1329, 1329, 1329, 1329, 1329],
     [1329, 1329, 1329, 1329, 1329, 1329, 1329, 1329],
     [1329, 1329, 1329, 1329, 1329, 1329, 1329, 1329],
     [1329, 1329, 1329, 1329, 1329, 1329, 1329, 1329],
     [1329, 1329, 1329, 1329, 1329, 1329, 1329, 1329],
     [1329, 1329, 1329, 1329, 1329, 1329, 1329, 1329],
     [1329, 1329, 1329, 1329, 1329, 1329, 1329, 1329],
     [1329, 1329, 1329, 1329, 1329, 1329, 1329, 1329],
     [1329, 1329, 1329, 1329, 1329, 1329, 1329, 1329],
     [1329, 1329, 1329, 1329, 1329, 1329, 1329, 1329],
     [1329, 1329, 1329, 1329, 1329, 1329, 1329, 1329],
     [1329, 1329, 1329, 1329, 1329, 1329, 1329, 1329],
     [1329, 1329, 1329, 1329, 1329, 1329, 1329, 1329],
     [1329, 1329, 1329, 1329, 1329, 1329, 1329, 1329],
     [1329, 1329, 1329, 1329, 1329, 1329, 1329, 1329],
     [1329, 1329, 1329, 1329, 1329, 1329, 1329, 1329],
     [1329, 1329, 1329, 1329, 1329, 1329, 1329, 1329],
     [1329, 1329, 1329, 1329, 1329, 1329, 1329, 1329],
     [1329, 1329, 1329, 1329, 1329, 1329, 1329, 1329],
     [1329, 1329, 1329, 1329, 1329, 1329, 1329, 1329],
     [1329, 1329, 1329, 1329, 1329, 1329, 1329, 1329],
     [1329, 1329, 1329, 1329, 1329, 1329, 1329, 1329],
     [1329, 1329, 1329, 1329, 1329, 1329, 1329, 1329],
     [1329, 1329, 1329, 1329, 1329, 1329, 1329, 1329],
     [1329, 1329, 1329, 1329, 1329, 1329, 1329, 1329],
     [1329, 1329, 1329, 1329, 1329, 1329, 1329, 1329],
     [1329, 1329, 1329, 1329, 1329, 1329, 1329, 1329],
     [1329, 1329, 1329, 1329, 1329, 1329, 1329, 1329],
     [1329, 1329, 1329, 1329, 1329, 1329, 1329, 1329],
     [1329, 1329, 1329, 1329, 1329, 1329, 1329, 1329],
     [1329, 1329, 1329, 1329, 1329, 1329, 1329, 1329],
     [1329, 1329, 1329, 1329, 1329, 1329, 1329, 1329],
     [1329, 1329, 1329, 1329, 1329, 1329, 1329, 1329],
     [1329, 1329, 1329, 1329, 1329, 1329, 1329, 1329],
     [1329, 1329, 1329, 1329, 1329, 1329, 1329, 1329],
     [1329, 1329, 1329, 1329, 1329, 1329, 1329, 1329],
     [1329, 1329, 1329, 1329, 1329, 1329, 1329, 1329],
     [1329, 1329, 1329, 1329, 1329, 1329, 1329, 1329],
     [1329, 1329, 1329, 1329, 1329, 1329, 1329, 1329],
     [1329, 1329, 1329, 1329, 1329, 1329, 1329, 1329],
     [1329, 1329, 1329, 1329, 1329, 1329, 1329, 1329],
     [1329, 1329, 1329, 1329, 1329, 1329, 1329, 1329],
     [1329, 1329, 1329, 1329, 1329, 1329, 1329, 1329],
     [1329, 1329, 1329, 1329, 1329, 1329, 1329, 1329],
     [1329, 1329, 1329, 1329, 1329, 1329, 1329, 1329],
     [1329, 1329, 1329, 1329, 1329, 1329, 1329, 1329],
     [1329, 1329, 1329, 1329, 1329, 1329, 1329, 1329],
     [1329, 1329, 1329, 1329, 1329, 1329, 1329, 1329],
     [1329, 1329, 1329, 1329, 1329, 1329, 1329, 1329],
     [1329, 1329, 1329, 1329, 1329, 1329, 1329, 1329],
     [1329, 1329, 1329, 1329, 1329, 1329, 1329, 1329],
     [1329, 1329, 1329, 1329, 1329, 1329, 1329, 1329],
     [1329, 1329, 1329, 1329, 1329, 1329, 1329, 1329],
     [1329, 1329, 1329, 1329, 1329, 1329, 1329, 1329]]"

definition smp_cond_lengths_1 :: "int list list" where
  "smp_cond_lengths_1 =
    [[0, 0, 0, 0, 0, 0, 0, 0],
     [0, 0, 0, 0, 0, 0, 0, 0],
     [0, 0, 0, 0, 0, 0, 0, 0],
     [0, 0, 0, 0, 0, 0, 0, 0],
     [0, 0, 0, 0, 0, 0, 0, 0],
     [0, 0, 0, 0, 0, 0, 0, 0],
     [0, 0, 0, 0, 0, 0, 0, 0],
     [0, 0, 0, 0, 0, 0, 0, 0],
     [0, 0, 0, 0, 0, 0, 0, 0],
     [0, 0, 0, 0, 0, 0, 0, 0],
     [0, 0, 0, 0, 0, 0, 0, 0],
     [0, 0, 0, 0, 0, 0, 0, 0],
     [0, 0, 0, 0, 0, 0, 0, 0],
     [0, 0, 0, 0, 0, 0, 0, 0],
     [0, 0, 0, 0, 0, 0, 0, 0],
     [0, 0, 0, 0, 0, 0, 0, 0],
     [0, 0, 0, 0, 0, 0, 0, 0],
     [0, 0, 0, 0, 0, 0, 0, 0],
     [0, 0, 0, 0, 0, 0, 0, 0],
     [0, 0, 0, 0, 0, 0, 0, 0],
     [0, 0, 0, 0, 0, 0, 0, 0],
     [0, 0, 0, 0, 0, 0, 0, 0],
     [0, 0, 0, 0, 0, 0, 0, 0],
     [0, 0, 0, 0, 0, 0, 0, 0],
     [0, 0, 0, 0, 0, 0, 0, 0],
     [0, 0, 0, 0, 0, 0, 0, 0],
     [0, 0, 0, 0, 0, 0, 0, 0],
     [0, 0, 0, 0, 0, 0, 0, 0],
     [0, 0, 0, 0, 0, 0, 0, 0],
     [0, 0, 0, 0, 0, 0, 0, 0],
     [0, 0, 0, 0, 0, 0, 0, 0],
     [0, 0, 0, 0, 0, 0, 0, 0],
     [0, 0, 0, 0, 0, 0, 0, 0],
     [0, 0, 0, 0, 0, 0, 0, 0],
     [0, 0, 0, 0, 0, 0, 0, 0],
     [0, 0, 0, 0, 0, 0, 0, 0],
     [0, 0, 0, 0, 0, 0, 0, 0],
     [0, 0, 0, 0, 0, 0, 0, 0],
     [0, 0, 0, 0, 0, 0, 0, 0],
     [0, 0, 0, 0, 0, 0, 0, 0],
     [0, 0, 0, 0, 0, 0, 0, 0],
     [0, 0, 0, 0, 0, 0, 0, 0],
     [0, 0, 0, 0, 0, 0, 0, 0],
     [0, 0, 0, 0, 0, 0, 0, 0],
     [0, 0, 0, 0, 0, 0, 0, 0],
     [0, 0, 0, 0, 0, 0, 0, 0],
     [0, 0, 0, 0, 0, 0, 0, 0],
     [0, 0, 0, 0, 0, 0, 0, 0],
     [0, 0, 0, 0, 0, 0, 0, 0],
     [0, 0, 0, 0, 0, 0, 0, 0],
     [0, 0, 0, 0, 0, 0, 0, 0],
     [0, 0, 0, 0, 0, 0, 0, 0],
     [0, 0, 0, 0, 0, 0, 0, 0],
     [0, 0, 0, 0, 0, 0, 0, 0],
     [0, 0, 0, 0, 0, 0, 0, 0],
     [0, 0, 0, 0, 0, 0, 0, 0],
     [0, 0, 0, 0, 0, 0, 0, 0],
     [0, 0, 0, 0, 0, 0, 0, 0],
     [0, 0, 0, 0, 0, 0, 0, 0],
     [0, 0, 0, 0, 0, 0, 0, 0],
     [0, 0, 0, 0, 0, 0, 0, 0],
     [0, 0, 0, 0, 0, 0, 0, 0],
     [0, 0, 0, 0, 0, 0, 0, 0],
     [0, 0, 0, 0, 0, 0, 0, 0],
     [0, 0, 0, 0, 0, 0, 0, 0],
     [0, 0, 0, 0, 0, 0, 0, 0],
     [0, 0, 0, 0, 0, 0, 0, 0],
     [0, 0, 0, 0, 0, 0, 0, 0],
     [0, 0, 0, 0, 0, 0, 0, 0],
     [0, 0, 0, 0, 0, 0, 0, 0],
     [0, 0, 0, 0, 0, 0, 0, 0],
     [0, 0, 0, 0, 0, 0, 0, 0],
     [0, 0, 0, 0, 0, 0, 0, 0],
     [0, 0, 0, 0, 0, 0, 0, 0],
     [0, 0, 0, 0, 0, 0, 0, 0],
     [0, 0, 0, 0, 0, 0, 0, 0],
     [0, 0, 0, 0, 0, 0, 0, 0],
     [0, 0, 0, 0, 0, 0, 0, 0],
     [0, 0, 0, 0, 0, 0, 0, 0],
     [0, 0, 0, 0, 0, 0, 0, 0],
     [0, 0, 0, 0, 0, 0, 0, 0],
     [0, 0, 0, 0, 0, 0, 0, 0],
     [0, 0, 0, 0, 0, 0, 0, 0],
     [0, 0, 0, 0, 0, 0, 0, 0],
     [0, 0, 0, 0, 0, 0, 0, 0],
     [0, 0, 0, 0, 0, 0, 0, 0],
     [0, 0, 0, 0, 0, 0, 0, 0],
     [0, 0, 0, 0, 0, 0, 0, 0],
     [0, 0, 0, 0, 0, 0, 0, 0],
     [0, 0, 0, 0, 0, 0, 0, 0],
     [0, 0, 0, 0, 0, 0, 0, 0],
     [0, 0, 0, 0, 0, 0, 0, 0],
     [0, 0, 0, 0, 0, 0, 0, 0],
     [0, 0, 0, 0, 0, 0, 0, 0],
     [0, 0, 0, 0, 0, 0, 0, 0],
     [0, 0, 0, 0, 0, 0, 0, 0],
     [0, 0, 0, 0, 0, 0, 0, 0],
     [0, 0, 0, 0, 0, 0, 0, 0],
     [0, 0, 0, 0, 0, 0, 0, 0],
     [0, 0, 0, 0, 0, 0, 0, 0],
     [0, 0, 0, 0, 0, 0, 0, 0],
     [0, 0, 0, 0, 0, 0, 0, 0],
     [0, 0, 0, 0, 0, 0, 0, 0],
     [0, 0, 0, 0, 0, 0, 0, 0],
     [0, 0, 0, 0, 0, 0, 0, 0],
     [0, 0, 0, 0, 0, 0, 0, 0],
     [0, 0, 0, 0, 0, 0, 0, 0],
     [0, 0, 0, 0, 0, 0, 0, 0],
     [0, 0, 0, 0, 0, 0, 0, 0],
     [0, 0, 0, 0, 0, 0, 0, 0],
     [0, 0, 0, 0, 0, 0, 0, 0],
     [0, 0, 0, 0, 0, 0, 0, 0],
     [0, 0, 0, 0, 0, 0, 0, 0],
     [0, 0, 0, 0, 0, 0, 0, 0],
     [0, 0, 0, 0, 0, 0, 0, 0],
     [0, 0, 0, 0, 0, 0, 0, 0],
     [0, 0, 0, 0, 0, 0, 0, 0],
     [0, 0, 0, 0, 0, 0, 0, 0],
     [0, 0, 0, 0, 0, 0, 0, 0],
     [0, 0, 0, 0, 0, 0, 0, 0],
     [0, 0, 0, 0, 0, 0, 0, 0],
     [0, 0, 0, 0, 0, 0, 0, 0],
     [0, 0, 0, 0, 0, 0, 0, 0],
     [0, 0, 0, 0, 0, 0, 0, 0],
     [0, 0, 0, 0, 0, 0, 0, 0],
     [0, 0, 0, 0, 0, 0, 0, 0],
     [0, 0, 0, 0, 0, 0, 0, 0],
     [0, 0, 0, 0, 0, 0, 0, 0],
     [0, 0, 0, 0, 0, 0, 0, 0],
     [0, 0, 0, 0, 0, 0, 0, 0],
     [0, 0, 0, 0, 0, 0, 0, 0],
     [0, 0, 0, 0, 0, 0, 0, 0],
     [0, 0, 0, 0, 0, 0, 0, 0],
     [0, 0, 0, 0, 0, 0, 0, 0],
     [0, 0, 0, 0, 0, 0, 0, 0],
     [0, 0, 0, 0, 0, 0, 0, 0],
     [0, 0, 0, 0, 0, 0, 0, 0],
     [0, 0, 0, 0, 0, 0, 0, 0],
     [0, 0, 0, 0, 0, 0, 0, 0],
     [0, 0, 0, 0, 0, 0, 0, 0],
     [0, 0, 0, 0, 0, 0, 0, 0],
     [0, 0, 0, 0, 0, 0, 0, 0],
     [0, 0, 0, 0, 0, 0, 0, 0],
     [0, 0, 0, 0, 0, 0, 0, 0],
     [0, 0, 0, 0, 0, 0, 0, 0],
     [0, 0, 0, 0, 0, 0, 0, 0],
     [0, 0, 0, 0, 0, 0, 0, 0],
     [0, 0, 0, 0, 0, 0, 0, 0],
     [0, 0, 0, 0, 0, 0, 0, 0],
     [0, 0, 0, 0, 0, 0, 0, 0]]"

definition smp_cond_lengths_2 :: "int list list" where
  "smp_cond_lengths_2 =
    [[0, 0, 0, 0, 0, 0, 0, 0],
     [0, 0, 0, 0, 0, 0, 0, 0],
     [0, 0, 0, 0, 0, 0, 0, 0],
     [0, 0, 0, 0, 0, 0, 0, 0],
     [0, 0, 0, 0, 0, 0, 0, 0],
     [0, 0, 0, 0, 0, 0, 0, 0],
     [0, 0, 0, 0, 0, 0, 0, 0],
     [0, 0, 0, 0, 0, 0, 0, 0],
     [0, 0, 0, 0, 0, 0, 0, 0],
     [0, 0, 0, 0, 0, 0, 0, 0],
     [0, 0, 0, 0, 0, 0, 0, 0],
     [0, 0, 0, 0, 0, 0, 0, 0],
     [0, 0, 0, 0, 0, 0, 0, 0],
     [0, 0, 0, 0, 0, 0, 0, 0],
     [0, 0, 0, 0, 0, 0, 0, 0],
     [0, 0, 0, 0, 0, 0, 0, 0],
     [0, 0, 0, 0, 0, 0, 0, 0],
     [0, 0, 0, 0, 0, 0, 0, 0],
     [0, 0, 0, 0, 0, 0, 0, 0],
     [0, 0, 0, 0, 0, 0, 0, 0],
     [0, 0, 0, 0, 0, 0, 0, 0],
     [0, 0, 0, 0, 0, 0, 0, 0],
     [0, 0, 0, 0, 0, 0, 0, 0],
     [0, 0, 0, 0, 0, 0, 0, 0],
     [0, 0, 0, 0, 0, 0, 0, 0],
     [0, 0, 0, 0, 0, 0, 0, 0],
     [0, 0, 0, 0, 0, 0, 0, 0],
     [0, 0, 0, 0, 0, 0, 0, 0],
     [0, 0, 0, 0, 0, 0, 0, 0],
     [0, 0, 0, 0, 0, 0, 0, 0],
     [0, 0, 0, 0, 0, 0, 0, 0],
     [0, 0, 0, 0, 0, 0, 0, 0],
     [0, 0, 0, 0, 0, 0, 0, 0],
     [0, 0, 0, 0, 0, 0, 0, 0],
     [0, 0, 0, 0, 0, 0, 0, 0],
     [0, 0, 0, 0, 0, 0, 0, 0],
     [0, 0, 0, 0, 0, 0, 0, 0],
     [0, 0, 0, 0, 0, 0, 0, 0],
     [0, 0, 0, 0, 0, 0, 0, 0],
     [0, 0, 0, 0, 0, 0, 0, 0],
     [0, 0, 0, 0, 0, 0, 0, 0],
     [0, 0, 0, 0, 0, 0, 0, 0],
     [0, 0, 0, 0, 0, 0, 0, 0],
     [0, 0, 0, 0, 0, 0, 0, 0],
     [0, 0, 0, 0, 0, 0, 0, 0],
     [0, 0, 0, 0, 0, 0, 0, 0],
     [0, 0, 0, 0, 0, 0, 0, 0],
     [0, 0, 0, 0, 0, 0, 0, 0],
     [0, 0, 0, 0, 0, 0, 0, 0],
     [0, 0, 0, 0, 0, 0, 0, 0],
     [0, 0, 0, 0, 0, 0, 0, 0],
     [0, 0, 0, 0, 0, 0, 0, 0],
     [0, 0, 0, 0, 0, 0, 0, 0],
     [0, 0, 0, 0, 0, 0, 0, 0],
     [0, 0, 0, 0, 0, 0, 0, 0],
     [0, 0, 0, 0, 0, 0, 0, 0],
     [0, 0, 0, 0, 0, 0, 0, 0],
     [0, 0, 0, 0, 0, 0, 0, 0],
     [0, 0, 0, 0, 0, 0, 0, 0],
     [0, 0, 0, 0, 0, 0, 0, 0],
     [0, 0, 0, 0, 0, 0, 0, 0],
     [0, 0, 0, 0, 0, 0, 0, 0],
     [0, 0, 0, 0, 0, 0, 0, 0],
     [0, 0, 0, 0, 0, 0, 0, 0],
     [0, 0, 0, 0, 0, 0, 0, 0],
     [0, 0, 0, 0, 0, 0, 0, 0],
     [0, 0, 0, 0, 0, 0, 0, 0],
     [0, 0, 0, 0, 0, 0, 0, 0],
     [0, 0, 0, 0, 0, 0, 0, 0],
     [0, 0, 0, 0, 0, 0, 0, 0],
     [0, 0, 0, 0, 0, 0, 0, 0],
     [0, 0, 0, 0, 0, 0, 0, 0],
     [0, 0, 0, 0, 0, 0, 0, 0],
     [0, 0, 0, 0, 0, 0, 0, 0],
     [0, 0, 0, 0, 0, 0, 0, 0],
     [0, 0, 0, 0, 0, 0, 0, 0],
     [0, 0, 0, 0, 0, 0, 0, 0],
     [0, 0, 0, 0, 0, 0, 0, 0],
     [0, 0, 0, 0, 0, 0, 0, 0],
     [0, 0, 0, 0, 0, 0, 0, 0],
     [0, 0, 0, 0, 0, 0, 0, 0],
     [0, 0, 0, 0, 0, 0, 0, 0],
     [0, 0, 0, 0, 0, 0, 0, 0],
     [0, 0, 0, 0, 0, 0, 0, 0],
     [0, 0, 0, 0, 0, 0, 0, 0],
     [0, 0, 0, 0, 0, 0, 0, 0],
     [0, 0, 0, 0, 0, 0, 0, 0],
     [0, 0, 0, 0, 0, 0, 0, 0],
     [0, 0, 0, 0, 0, 0, 0, 0],
     [0, 0, 0, 0, 0, 0, 0, 0],
     [0, 0, 0, 0, 0, 0, 0, 0],
     [0, 0, 0, 0, 0, 0, 0, 0],
     [0, 0, 0, 0, 0, 0, 0, 0],
     [0, 0, 0, 0, 0, 0, 0, 0],
     [0, 0, 0, 0, 0, 0, 0, 0],
     [0, 0, 0, 0, 0, 0, 0, 0],
     [0, 0, 0, 0, 0, 0, 0, 0],
     [0, 0, 0, 0, 0, 0, 0, 0],
     [0, 0, 0, 0, 0, 0, 0, 0],
     [0, 0, 0, 0, 0, 0, 0, 0],
     [0, 0, 0, 0, 0, 0, 0, 0],
     [0, 0, 0, 0, 0, 0, 0, 0],
     [0, 0, 0, 0, 0, 0, 0, 0],
     [0, 0, 0, 0, 0, 0, 0, 0],
     [0, 0, 0, 0, 0, 0, 0, 0],
     [0, 0, 0, 0, 0, 0, 0, 0],
     [0, 0, 0, 0, 0, 0, 0, 0],
     [0, 0, 0, 0, 0, 0, 0, 0],
     [0, 0, 0, 0, 0, 0, 0, 0],
     [0, 0, 0, 0, 0, 0, 0, 0],
     [0, 0, 0, 0, 0, 0, 0, 0],
     [0, 0, 0, 0, 0, 0, 0, 0],
     [0, 0, 0, 0, 0, 0, 0, 0],
     [0, 0, 0, 0, 0, 0, 0, 0],
     [0, 0, 0, 0, 0, 0, 0, 0],
     [0, 0, 0, 0, 0, 0, 0, 0],
     [0, 0, 0, 0, 0, 0, 0, 0],
     [0, 0, 0, 0, 0, 0, 0, 0],
     [0, 0, 0, 0, 0, 0, 0, 0],
     [0, 0, 0, 0, 0, 0, 0, 0],
     [0, 0, 0, 0, 0, 0, 0, 0],
     [0, 0, 0, 0, 0, 0, 0, 0],
     [0, 0, 0, 0, 0, 0, 0, 0],
     [0, 0, 0, 0, 0, 0, 0, 0],
     [0, 0, 0, 0, 0, 0, 0, 0],
     [0, 0, 0, 0, 0, 0, 0, 0],
     [0, 0, 0, 0, 0, 0, 0, 0],
     [0, 0, 0, 0, 0, 0, 0, 0],
     [0, 0, 0, 0, 0, 0, 0, 0],
     [0, 0, 0, 0, 0, 0, 0, 0],
     [0, 0, 0, 0, 0, 0, 0, 0],
     [0, 0, 0, 0, 0, 0, 0, 0],
     [0, 0, 0, 0, 0, 0, 0, 0],
     [0, 0, 0, 0, 0, 0, 0, 0],
     [0, 0, 0, 0, 0, 0, 0, 0],
     [0, 0, 0, 0, 0, 0, 0, 0],
     [0, 0, 0, 0, 0, 0, 0, 0],
     [0, 0, 0, 0, 0, 0, 0, 0],
     [0, 0, 0, 0, 0, 0, 0, 0],
     [0, 0, 0, 0, 0, 0, 0, 0],
     [0, 0, 0, 0, 0, 0, 0, 0],
     [0, 0, 0, 0, 0, 0, 0, 0],
     [0, 0, 0, 0, 0, 0, 0, 0],
     [0, 0, 0, 0, 0, 0, 0, 0],
     [0, 0, 0, 0, 0, 0, 0, 0],
     [0, 0, 0, 0, 0, 0, 0, 0],
     [0, 0, 0, 0, 0, 0, 0, 0],
     [0, 0, 0, 0, 0, 0, 0, 0],
     [0, 0, 0, 0, 0, 0, 0, 0],
     [0, 0, 0, 0, 0, 0, 0, 0]]"

definition smp_cond_lengths_3 :: "int list list" where
  "smp_cond_lengths_3 =
    [[0, 0, 0, 0, 0, 0, 0, 0],
     [0, 0, 0, 0, 0, 0, 0, 0],
     [0, 0, 0, 0, 0, 0, 0, 0],
     [0, 0, 0, 0, 0, 0, 0, 0],
     [0, 0, 0, 0, 0, 0, 0, 0],
     [0, 0, 0, 0, 0, 0, 0, 0],
     [0, 0, 0, 0, 0, 0, 0, 0],
     [0, 0, 0, 0, 0, 0, 0, 0],
     [0, 0, 0, 0, 0, 0, 0, 0],
     [0, 0, 0, 0, 0, 0, 0, 0],
     [0, 0, 0, 0, 0, 0, 0, 0],
     [0, 0, 0, 0, 0, 0, 0, 0],
     [0, 0, 0, 0, 0, 0, 0, 0],
     [0, 0, 0, 0, 0, 0, 0, 0],
     [0, 0, 0, 0, 0, 0, 0, 0],
     [0, 0, 0, 0, 0, 0, 0, 0],
     [0, 0, 0, 0, 0, 0, 0, 0],
     [0, 0, 0, 0, 0, 0, 0, 0],
     [0, 0, 0, 0, 0, 0, 0, 0],
     [0, 0, 0, 0, 0, 0, 0, 0],
     [0, 0, 0, 0, 0, 0, 0, 0],
     [0, 0, 0, 0, 0, 0, 0, 0],
     [0, 0, 0, 0, 0, 0, 0, 0],
     [0, 0, 0, 0, 0, 0, 0, 0],
     [0, 0, 0, 0, 0, 0, 0, 0],
     [0, 0, 0, 0, 0, 0, 0, 0],
     [0, 0, 0, 0, 0, 0, 0, 0],
     [0, 0, 0, 0, 0, 0, 0, 0],
     [0, 0, 0, 0, 0, 0, 0, 0],
     [0, 0, 0, 0, 0, 0, 0, 0],
     [0, 0, 0, 0, 0, 0, 0, 0],
     [0, 0, 0, 0, 0, 0, 0, 0],
     [0, 0, 0, 0, 0, 0, 0, 0],
     [0, 0, 0, 0, 0, 0, 0, 0],
     [0, 0, 0, 0, 0, 0, 0, 0],
     [0, 0, 0, 0, 0, 0, 0, 0],
     [0, 0, 0, 0, 0, 0, 0, 0],
     [0, 0, 0, 0, 0, 0, 0, 0],
     [0, 0, 0, 0, 0, 0, 0, 0],
     [0, 0, 0, 0, 0, 0, 0, 0],
     [0, 0, 0, 0, 0, 0, 0, 0],
     [0, 0, 0, 0, 0, 0, 0, 0],
     [0, 0, 0, 0, 0, 0, 0, 0],
     [0, 0, 0, 0, 0, 0, 0, 0],
     [0, 0, 0, 0, 0, 0, 0, 0],
     [0, 0, 0, 0, 0, 0, 0, 0],
     [0, 0, 0, 0, 0, 0, 0, 0],
     [0, 0, 0, 0, 0, 0, 0, 0],
     [0, 0, 0, 0, 0, 0, 0, 0],
     [0, 0, 0, 0, 0, 0, 0, 0],
     [0, 0, 0, 0, 0, 0, 0, 0],
     [0, 0, 0, 0, 0, 0, 0, 0],
     [0, 0, 0, 0, 0, 0, 0, 0],
     [0, 0, 0, 0, 0, 0, 0, 0],
     [0, 0, 0, 0, 0, 0, 0, 0],
     [0, 0, 0, 0, 0, 0, 0, 0],
     [0, 0, 0, 0, 0, 0, 0, 0],
     [0, 0, 0, 0, 0, 0, 0, 0],
     [0, 0, 0, 0, 0, 0, 0, 0],
     [0, 0, 0, 0, 0, 0, 0, 0],
     [0, 0, 0, 0, 0, 0, 0, 0],
     [0, 0, 0, 0, 0, 0, 0, 0],
     [0, 0, 0, 0, 0, 0, 0, 0],
     [0, 0, 0, 0, 0, 0, 0, 0],
     [0, 0, 0, 0, 0, 0, 0, 0],
     [0, 0, 0, 0, 0, 0, 0, 0],
     [0, 0, 0, 0, 0, 0, 0, 0],
     [0, 0, 0, 0, 0, 0, 0, 0],
     [0, 0, 0, 0, 0, 0, 0, 0],
     [0, 0, 0, 0, 0, 0, 0, 0],
     [0, 0, 0, 0, 0, 0, 0, 0],
     [0, 0, 0, 0, 0, 0, 0, 0],
     [0, 0, 0, 0, 0, 0, 0, 0],
     [0, 0, 0, 0, 0, 0, 0, 0],
     [0, 0, 0, 0, 0, 0, 0, 0],
     [0, 0, 0, 0, 0, 0, 0, 0],
     [0, 0, 0, 0, 0, 0, 0, 0],
     [0, 0, 0, 0, 0, 0, 0, 0],
     [0, 0, 0, 0, 0, 0, 0, 0],
     [0, 0, 0, 0, 0, 0, 0, 0],
     [0, 0, 0, 0, 0, 0, 0, 0],
     [0, 0, 0, 0, 0, 0, 0, 0],
     [0, 0, 0, 0, 0, 0, 0, 0],
     [0, 0, 0, 0, 0, 0, 0, 0],
     [0, 0, 0, 0, 0, 0, 0, 0],
     [0, 0, 0, 0, 0, 0, 0, 0],
     [0, 0, 0, 0, 0, 0, 0, 0],
     [0, 0, 0, 0, 0, 0, 0, 0],
     [0, 0, 0, 0, 0, 0, 0, 0],
     [0, 0, 0, 0, 0, 0, 0, 0],
     [0, 0, 0, 0, 0, 0, 0, 0],
     [0, 0, 0, 0, 0, 0, 0, 0],
     [0, 0, 0, 0, 0, 0, 0, 0],
     [0, 0, 0, 0, 0, 0, 0, 0],
     [0, 0, 0, 0, 0, 0, 0, 0],
     [0, 0, 0, 0, 0, 0, 0, 0],
     [0, 0, 0, 0, 0, 0, 0, 0],
     [0, 0, 0, 0, 0, 0, 0, 0],
     [0, 0, 0, 0, 0, 0, 0, 0],
     [0, 0, 0, 0, 0, 0, 0, 0],
     [0, 0, 0, 0, 0, 0, 0, 0],
     [0, 0, 0, 0, 0, 0, 0, 0],
     [0, 0, 0, 0, 0, 0, 0, 0],
     [0, 0, 0, 0, 0, 0, 0, 0],
     [0, 0, 0, 0, 0, 0, 0, 0],
     [0, 0, 0, 0, 0, 0, 0, 0],
     [0, 0, 0, 0, 0, 0, 0, 0],
     [0, 0, 0, 0, 0, 0, 0, 0],
     [0, 0, 0, 0, 0, 0, 0, 0],
     [0, 0, 0, 0, 0, 0, 0, 0],
     [0, 0, 0, 0, 0, 0, 0, 0],
     [0, 0, 0, 0, 0, 0, 0, 0],
     [0, 0, 0, 0, 0, 0, 0, 0],
     [0, 0, 0, 0, 0, 0, 0, 0],
     [0, 0, 0, 0, 0, 0, 0, 0],
     [0, 0, 0, 0, 0, 0, 0, 0],
     [0, 0, 0, 0, 0, 0, 0, 0],
     [0, 0, 0, 0, 0, 0, 0, 0],
     [0, 0, 0, 0, 0, 0, 0, 0],
     [0, 0, 0, 0, 0, 0, 0, 0],
     [0, 0, 0, 0, 0, 0, 0, 0],
     [0, 0, 0, 0, 0, 0, 0, 0],
     [0, 0, 0, 0, 0, 0, 0, 0],
     [0, 0, 0, 0, 0, 0, 0, 0],
     [0, 0, 0, 0, 0, 0, 0, 0],
     [0, 0, 0, 0, 0, 0, 0, 0],
     [0, 0, 0, 0, 0, 0, 0, 0],
     [0, 0, 0, 0, 0, 0, 0, 0],
     [0, 0, 0, 0, 0, 0, 0, 0],
     [0, 0, 0, 0, 0, 0, 0, 0],
     [0, 0, 0, 0, 0, 0, 0, 0],
     [0, 0, 0, 0, 0, 0, 0, 0],
     [0, 0, 0, 0, 0, 0, 0, 0],
     [0, 0, 0, 0, 0, 0, 0, 0],
     [0, 0, 0, 0, 0, 0, 0, 0],
     [0, 0, 0, 0, 0, 0, 0, 0],
     [0, 0, 0, 0, 0, 0, 0, 0],
     [0, 0, 0, 0, 0, 0, 0, 0],
     [0, 0, 0, 0, 0, 0, 0, 0],
     [0, 0, 0, 0, 0, 0, 0, 0],
     [0, 0, 0, 0, 0, 0, 0, 0],
     [0, 0, 0, 0, 0, 0, 0, 0],
     [0, 0, 0, 0, 0, 0, 0, 0],
     [0, 0, 0, 0, 0, 0, 0, 0],
     [0, 0, 0, 0, 0, 0, 0, 0],
     [0, 0, 0, 0, 0, 0, 0, 0],
     [0, 0, 0, 0, 0, 0, 0, 0],
     [0, 0, 0, 0, 0, 0, 0, 0],
     [0, 0, 0, 0, 0, 0, 0, 0],
     [0, 0, 0, 0, 0, 0, 0, 0]]"

definition smp_cond_lengths_4 :: "int list list" where
  "smp_cond_lengths_4 =
    [[0, 0, 0, 0, 0, 0, 0, 0],
     [0, 0, 0, 0, 0, 0, 0, 0],
     [0, 0, 0, 0, 0, 0, 0, 0],
     [0, 0, 0, 0, 0, 0, 0, 0],
     [0, 0, 0, 0, 0, 0, 0, 0],
     [0, 0, 0, 0, 0, 0, 0, 0],
     [0, 0, 0, 0, 0, 0, 0, 0],
     [0, 0, 0, 0, 0, 0, 0, 0],
     [0, 0, 0, 0, 0, 0, 0, 0],
     [0, 0, 0, 0, 0, 0, 0, 0],
     [0, 0, 0, 0, 0, 0, 0, 0],
     [0, 0, 0, 0, 0, 0, 0, 0],
     [0, 0, 0, 0, 0, 0, 0, 0],
     [0, 0, 0, 0, 0, 0, 0, 0],
     [0, 0, 0, 0, 0, 0, 0, 0],
     [0, 0, 0, 0, 0, 0, 0, 0],
     [0, 0, 0, 0, 0, 0, 0, 0],
     [0, 0, 0, 0, 0, 0, 0, 0],
     [0, 0, 0, 0, 0, 0, 0, 0],
     [0, 0, 0, 0, 0, 0, 0, 0],
     [0, 0, 0, 0, 0, 0, 0, 0],
     [0, 0, 0, 0, 0, 0, 0, 0],
     [0, 0, 0, 0, 0, 0, 0, 0],
     [0, 0, 0, 0, 0, 0, 0, 0],
     [0, 0, 0, 0, 0, 0, 0, 0],
     [0, 0, 0, 0, 0, 0, 0, 0],
     [0, 0, 0, 0, 0, 0, 0, 0],
     [0, 0, 0, 0, 0, 0, 0, 0],
     [0, 0, 0, 0, 0, 0, 0, 0],
     [0, 0, 0, 0, 0, 0, 0, 0],
     [0, 0, 0, 0, 0, 0, 0, 0],
     [0, 0, 0, 0, 0, 0, 0, 0],
     [0, 0, 0, 0, 0, 0, 0, 0],
     [0, 0, 0, 0, 0, 0, 0, 0],
     [0, 0, 0, 0, 0, 0, 0, 0],
     [0, 0, 0, 0, 0, 0, 0, 0],
     [0, 0, 0, 0, 0, 0, 0, 0],
     [0, 0, 0, 0, 0, 0, 0, 0],
     [0, 0, 0, 0, 0, 0, 0, 0],
     [0, 0, 0, 0, 0, 0, 0, 0],
     [0, 0, 0, 0, 0, 0, 0, 0],
     [0, 0, 0, 0, 0, 0, 0, 0],
     [0, 0, 0, 0, 0, 0, 0, 0],
     [0, 0, 0, 0, 0, 0, 0, 0],
     [0, 0, 0, 0, 0, 0, 0, 0],
     [0, 0, 0, 0, 0, 0, 0, 0],
     [0, 0, 0, 0, 0, 0, 0, 0],
     [0, 0, 0, 0, 0, 0, 0, 0],
     [0, 0, 0, 0, 0, 0, 0, 0],
     [0, 0, 0, 0, 0, 0, 0, 0],
     [0, 0, 0, 0, 0, 0, 0, 0],
     [0, 0, 0, 0, 0, 0, 0, 0],
     [0, 0, 0, 0, 0, 0, 0, 0],
     [0, 0, 0, 0, 0, 0, 0, 0],
     [0, 0, 0, 0, 0, 0, 0, 0],
     [0, 0, 0, 0, 0, 0, 0, 0],
     [0, 0, 0, 0, 0, 0, 0, 0],
     [0, 0, 0, 0, 0, 0, 0, 0],
     [0, 0, 0, 0, 0, 0, 0, 0],
     [0, 0, 0, 0, 0, 0, 0, 0],
     [0, 0, 0, 0, 0, 0, 0, 0],
     [0, 0, 0, 0, 0, 0, 0, 0],
     [0, 0, 0, 0, 0, 0, 0, 0],
     [0, 0, 0, 0, 0, 0, 0, 0],
     [0, 0, 0, 0, 0, 0, 0, 0],
     [0, 0, 0, 0, 0, 0, 0, 0],
     [0, 0, 0, 0, 0, 0, 0, 0],
     [0, 0, 0, 0, 0, 0, 0, 0],
     [0, 0, 0, 0, 0, 0, 0, 0],
     [0, 0, 0, 0, 0, 0, 0, 0],
     [0, 0, 0, 0, 0, 0, 0, 0],
     [0, 0, 0, 0, 0, 0, 0, 0],
     [0, 0, 0, 0, 0, 0, 0, 0],
     [0, 0, 0, 0, 0, 0, 0, 0],
     [0, 0, 0, 0, 0, 0, 0, 0],
     [0, 0, 0, 0, 0, 0, 0, 0],
     [0, 0, 0, 0, 0, 0, 0, 0],
     [0, 0, 0, 0, 0, 0, 0, 0],
     [0, 0, 0, 0, 0, 0, 0, 0],
     [0, 0, 0, 0, 0, 0, 0, 0],
     [0, 0, 0, 0, 0, 0, 0, 0],
     [0, 0, 0, 0, 0, 0, 0, 0],
     [0, 0, 0, 0, 0, 0, 0, 0],
     [0, 0, 0, 0, 0, 0, 0, 0],
     [0, 0, 0, 0, 0, 0, 0, 0],
     [0, 0, 0, 0, 0, 0, 0, 0],
     [0, 0, 0, 0, 0, 0, 0, 0],
     [0, 0, 0, 0, 0, 0, 0, 0],
     [0, 0, 0, 0, 0, 0, 0, 0],
     [0, 0, 0, 0, 0, 0, 0, 0],
     [0, 0, 0, 0, 0, 0, 0, 0],
     [0, 0, 0, 0, 0, 0, 0, 0],
     [0, 0, 0, 0, 0, 0, 0, 0],
     [0, 0, 0, 0, 0, 0, 0, 0],
     [0, 0, 0, 0, 0, 0, 0, 0],
     [0, 0, 0, 0, 0, 0, 0, 0],
     [0, 0, 0, 0, 0, 0, 0, 0],
     [0, 0, 0, 0, 0, 0, 0, 0],
     [0, 0, 0, 0, 0, 0, 0, 0],
     [0, 0, 0, 0, 0, 0, 0, 0],
     [0, 0, 0, 0, 0, 0, 0, 0],
     [0, 0, 0, 0, 0, 0, 0, 0],
     [0, 0, 0, 0, 0, 0, 0, 0],
     [0, 0, 0, 0, 0, 0, 0, 0],
     [0, 0, 0, 0, 0, 0, 0, 0],
     [0, 0, 0, 0, 0, 0, 0, 0],
     [0, 0, 0, 0, 0, 0, 0, 0],
     [0, 0, 0, 0, 0, 0, 0, 0],
     [0, 0, 0, 0, 0, 0, 0, 0],
     [0, 0, 0, 0, 0, 0, 0, 0],
     [0, 0, 0, 0, 0, 0, 0, 0],
     [0, 0, 0, 0, 0, 0, 0, 0],
     [0, 0, 0, 0, 0, 0, 0, 0],
     [0, 0, 0, 0, 0, 0, 0, 0],
     [0, 0, 0, 0, 0, 0, 0, 0],
     [0, 0, 0, 0, 0, 0, 0, 0],
     [0, 0, 0, 0, 0, 0, 0, 0],
     [0, 0, 0, 0, 0, 0, 0, 0],
     [0, 0, 0, 0, 0, 0, 0, 0],
     [0, 0, 0, 0, 0, 0, 0, 0],
     [0, 0, 0, 0, 0, 0, 0, 0],
     [0, 0, 0, 0, 0, 0, 0, 0],
     [0, 0, 0, 0, 0, 0, 0, 0],
     [0, 0, 0, 0, 0, 0, 0, 0],
     [0, 0, 0, 0, 0, 0, 0, 0],
     [0, 0, 0, 0, 0, 0, 0, 0],
     [0, 0, 0, 0, 0, 0, 0, 0],
     [0, 0, 0, 0, 0, 0, 0, 0],
     [0, 0, 0, 0, 0, 0, 0, 0],
     [0, 0, 0, 0, 0, 0, 0, 0],
     [0, 0, 0, 0, 0, 0, 0, 0],
     [0, 0, 0, 0, 0, 0, 0, 0],
     [0, 0, 0, 0, 0, 0, 0, 0],
     [0, 0, 0, 0, 0, 0, 0, 0],
     [0, 0, 0, 0, 0, 0, 0, 0],
     [0, 0, 0, 0, 0, 0, 0, 0],
     [0, 0, 0, 0, 0, 0, 0, 0],
     [0, 0, 0, 0, 0, 0, 0, 0],
     [0, 0, 0, 0, 0, 0, 0, 0],
     [0, 0, 0, 0, 0, 0, 0, 0],
     [0, 0, 0, 0, 0, 0, 0, 0],
     [0, 0, 0, 0, 0, 0, 0, 0],
     [0, 0, 0, 0, 0, 0, 0, 0],
     [0, 0, 0, 0, 0, 0, 0, 0],
     [0, 0, 0, 0, 0, 0, 0, 0],
     [0, 0, 0, 0, 0, 0, 0, 0],
     [0, 0, 0, 0, 0, 0, 0, 0],
     [0, 0, 0, 0, 0, 0, 0, 0],
     [0, 0, 0, 0, 0, 0, 0, 0],
     [0, 0, 0, 0, 0, 0, 0, 0]]"

definition smp_cond_lengths_5 :: "int list list" where
  "smp_cond_lengths_5 =
    [[0, 0, 0, 0, 0, 0, 0, 0],
     [0, 0, 0, 0, 0, 0, 0, 0],
     [0, 0, 0, 0, 0, 0, 0, 0],
     [0, 0, 0, 0, 0, 0, 0, 0],
     [0, 0, 0, 0, 0, 0, 0, 0],
     [0, 0, 0, 0, 0, 0, 0, 0],
     [0, 0, 0, 0, 0, 0, 0, 0],
     [0, 0, 0, 0, 0, 0, 0, 0],
     [0, 0, 0, 0, 0, 0, 0, 0],
     [0, 0, 0, 0, 0, 0, 0, 0],
     [0, 0, 0, 0, 0, 0, 0, 0],
     [0, 0, 0, 0, 0, 0, 0, 0],
     [0, 0, 0, 0, 0, 0, 0, 0],
     [0, 0, 0, 0, 0, 0, 0, 0],
     [0, 0, 0, 0, 0, 0, 0, 0],
     [0, 0, 0, 0, 0, 0, 0, 0],
     [0, 0, 0, 0, 0, 0, 0, 0],
     [0, 0, 0, 0, 0, 0, 0, 0],
     [0, 0, 0, 0, 0, 0, 0, 0],
     [0, 0, 0, 0, 0, 0, 0, 0],
     [0, 0, 0, 0, 0, 0, 0, 0],
     [0, 0, 0, 0, 0, 0, 0, 0],
     [0, 0, 0, 0, 0, 0, 0, 0],
     [0, 0, 0, 0, 0, 0, 0, 0],
     [0, 0, 0, 0, 0, 0, 0, 0],
     [0, 0, 0, 0, 0, 0, 0, 0],
     [0, 0, 0, 0, 0, 0, 0, 0],
     [0, 0, 0, 0, 0, 0, 0, 0],
     [0, 0, 0, 0, 0, 0, 0, 0],
     [0, 0, 0, 0, 0, 0, 0, 0],
     [0, 0, 0, 0, 0, 0, 0, 0],
     [0, 0, 0, 0, 0, 0, 0, 0],
     [0, 0, 0, 0, 0, 0, 0, 0],
     [0, 0, 0, 0, 0, 0, 0, 0],
     [0, 0, 0, 0, 0, 0, 0, 0],
     [0, 0, 0, 0, 0, 0, 0, 0],
     [0, 0, 0, 0, 0, 0, 0, 0],
     [0, 0, 0, 0, 0, 0, 0, 0],
     [0, 0, 0, 0, 0, 0, 0, 0],
     [0, 0, 0, 0, 0, 0, 0, 0],
     [0, 0, 0, 0, 0, 0, 0, 0],
     [0, 0, 0, 0, 0, 0, 0, 0],
     [0, 0, 0, 0, 0, 0, 0, 0],
     [0, 0, 0, 0, 0, 0, 0, 0],
     [0, 0, 0, 0, 0, 0, 0, 0],
     [0, 0, 0, 0, 0, 0, 0, 0],
     [0, 0, 0, 0, 0, 0, 0, 0],
     [0, 0, 0, 0, 0, 0, 0, 0],
     [0, 0, 0, 0, 0, 0, 0, 0],
     [0, 0, 0, 0, 0, 0, 0, 0],
     [0, 0, 0, 0, 0, 0, 0, 0],
     [0, 0, 0, 0, 0, 0, 0, 0],
     [0, 0, 0, 0, 0, 0, 0, 0],
     [0, 0, 0, 0, 0, 0, 0, 0],
     [0, 0, 0, 0, 0, 0, 0, 0],
     [0, 0, 0, 0, 0, 0, 0, 0],
     [0, 0, 0, 0, 0, 0, 0, 0],
     [0, 0, 0, 0, 0, 0, 0, 0],
     [0, 0, 0, 0, 0, 0, 0, 0],
     [0, 0, 0, 0, 0, 0, 0, 0],
     [0, 0, 0, 0, 0, 0, 0, 0],
     [0, 0, 0, 0, 0, 0, 0, 0],
     [0, 0, 0, 0, 0, 0, 0, 0],
     [0, 0, 0, 0, 0, 0, 0, 0],
     [0, 0, 0, 0, 0, 0, 0, 0],
     [0, 0, 0, 0, 0, 0, 0, 0],
     [0, 0, 0, 0, 0, 0, 0, 0],
     [0, 0, 0, 0, 0, 0, 0, 0],
     [0, 0, 0, 0, 0, 0, 0, 0],
     [0, 0, 0, 0, 0, 0, 0, 0],
     [0, 0, 0, 0, 0, 0, 0, 0],
     [0, 0, 0, 0, 0, 0, 0, 0],
     [0, 0, 0, 0, 0, 0, 0, 0],
     [0, 0, 0, 0, 0, 0, 0, 0],
     [0, 0, 0, 0, 0, 0, 0, 0],
     [0, 0, 0, 0, 0, 0, 0, 0],
     [0, 0, 0, 0, 0, 0, 0, 0],
     [0, 0, 0, 0, 0, 0, 0, 0],
     [0, 0, 0, 0, 0, 0, 0, 0],
     [0, 0, 0, 0, 0, 0, 0, 0],
     [0, 0, 0, 0, 0, 0, 0, 0],
     [0, 0, 0, 0, 0, 0, 0, 0],
     [0, 0, 0, 0, 0, 0, 0, 0],
     [0, 0, 0, 0, 0, 0, 0, 0],
     [0, 0, 0, 0, 0, 0, 0, 0],
     [0, 0, 0, 0, 0, 0, 0, 0],
     [0, 0, 0, 0, 0, 0, 0, 0],
     [0, 0, 0, 0, 0, 0, 0, 0],
     [0, 0, 0, 0, 0, 0, 0, 0],
     [0, 0, 0, 0, 0, 0, 0, 0],
     [0, 0, 0, 0, 0, 0, 0, 0],
     [0, 0, 0, 0, 0, 0, 0, 0],
     [0, 0, 0, 0, 0, 0, 0, 0],
     [0, 0, 0, 0, 0, 0, 0, 0],
     [0, 0, 0, 0, 0, 0, 0, 0],
     [0, 0, 0, 0, 0, 0, 0, 0],
     [0, 0, 0, 0, 0, 0, 0, 0],
     [0, 0, 0, 0, 0, 0, 0, 0],
     [0, 0, 0, 0, 0, 0, 0, 0],
     [0, 0, 0, 0, 0, 0, 0, 0],
     [0, 0, 0, 0, 0, 0, 0, 0],
     [0, 0, 0, 0, 0, 0, 0, 0],
     [0, 0, 0, 0, 0, 0, 0, 0],
     [0, 0, 0, 0, 0, 0, 0, 0],
     [0, 0, 0, 0, 0, 0, 0, 0],
     [0, 0, 0, 0, 0, 0, 0, 0],
     [0, 0, 0, 0, 0, 0, 0, 0],
     [0, 0, 0, 0, 0, 0, 0, 0],
     [0, 0, 0, 0, 0, 0, 0, 0],
     [0, 0, 0, 0, 0, 0, 0, 0],
     [0, 0, 0, 0, 0, 0, 0, 0],
     [0, 0, 0, 0, 0, 0, 0, 0],
     [0, 0, 0, 0, 0, 0, 0, 0],
     [0, 0, 0, 0, 0, 0, 0, 0],
     [0, 0, 0, 0, 0, 0, 0, 0],
     [0, 0, 0, 0, 0, 0, 0, 0],
     [0, 0, 0, 0, 0, 0, 0, 0],
     [0, 0, 0, 0, 0, 0, 0, 0],
     [0, 0, 0, 0, 0, 0, 0, 0],
     [0, 0, 0, 0, 0, 0, 0, 0],
     [0, 0, 0, 0, 0, 0, 0, 0],
     [0, 0, 0, 0, 0, 0, 0, 0],
     [0, 0, 0, 0, 0, 0, 0, 0],
     [0, 0, 0, 0, 0, 0, 0, 0],
     [0, 0, 0, 0, 0, 0, 0, 0],
     [0, 0, 0, 0, 0, 0, 0, 0],
     [0, 0, 0, 0, 0, 0, 0, 0],
     [0, 0, 0, 0, 0, 0, 0, 0],
     [0, 0, 0, 0, 0, 0, 0, 0],
     [0, 0, 0, 0, 0, 0, 0, 0],
     [0, 0, 0, 0, 0, 0, 0, 0],
     [0, 0, 0, 0, 0, 0, 0, 0],
     [0, 0, 0, 0, 0, 0, 0, 0],
     [0, 0, 0, 0, 0, 0, 0, 0],
     [0, 0, 0, 0, 0, 0, 0, 0],
     [0, 0, 0, 0, 0, 0, 0, 0],
     [0, 0, 0, 0, 0, 0, 0, 0],
     [0, 0, 0, 0, 0, 0, 0, 0],
     [0, 0, 0, 0, 0, 0, 0, 0],
     [0, 0, 0, 0, 0, 0, 0, 0],
     [0, 0, 0, 0, 0, 0, 0, 0],
     [0, 0, 0, 0, 0, 0, 0, 0],
     [0, 0, 0, 0, 0, 0, 0, 0],
     [0, 0, 0, 0, 0, 0, 0, 0],
     [0, 0, 0, 0, 0, 0, 0, 0],
     [0, 0, 0, 0, 0, 0, 0, 0],
     [0, 0, 0, 0, 0, 0, 0, 0],
     [0, 0, 0, 0, 0, 0, 0, 0],
     [0, 0, 0, 0, 0, 0, 0, 0],
     [0, 0, 0, 0, 0, 0, 0, 0]]"

definition smp_cond_lengths_6 :: "int list list" where
  "smp_cond_lengths_6 =
    [[0, 0, 0, 0, 0, 0, 0, 0],
     [0, 0, 0, 0, 0, 0, 0, 0],
     [0, 0, 0, 0, 0, 0, 0, 0],
     [0, 0, 0, 0, 0, 0, 0, 0],
     [0, 0, 0, 0, 0, 0, 0, 0],
     [0, 0, 0, 0, 0, 0, 0, 0],
     [0, 0, 0, 0, 0, 0, 0, 0],
     [0, 0, 0, 0, 0, 0, 0, 0],
     [0, 0, 0, 0, 0, 0, 0, 0],
     [0, 0, 0, 0, 0, 0, 0, 0],
     [0, 0, 0, 0, 0, 0, 0, 0],
     [0, 0, 0, 0, 0, 0, 0, 0],
     [0, 0, 0, 0, 0, 0, 0, 0],
     [0, 0, 0, 0, 0, 0, 0, 0],
     [0, 0, 0, 0, 0, 0, 0, 0],
     [0, 0, 0, 0, 0, 0, 0, 0],
     [0, 0, 0, 0, 0, 0, 0, 0],
     [0, 0, 0, 0, 0, 0, 0, 0],
     [0, 0, 0, 0, 0, 0, 0, 0],
     [0, 0, 0, 0, 0, 0, 0, 0],
     [0, 0, 0, 0, 0, 0, 0, 0],
     [0, 0, 0, 0, 0, 0, 0, 0],
     [0, 0, 0, 0, 0, 0, 0, 0],
     [0, 0, 0, 0, 0, 0, 0, 0],
     [0, 0, 0, 0, 0, 0, 0, 0],
     [0, 0, 0, 0, 0, 0, 0, 0],
     [0, 0, 0, 0, 0, 0, 0, 0],
     [0, 0, 0, 0, 0, 0, 0, 0],
     [0, 0, 0, 0, 0, 0, 0, 0],
     [0, 0, 0, 0, 0, 0, 0, 0],
     [0, 0, 0, 0, 0, 0, 0, 0],
     [0, 0, 0, 0, 0, 0, 0, 0],
     [0, 0, 0, 0, 0, 0, 0, 0],
     [0, 0, 0, 0, 0, 0, 0, 0],
     [0, 0, 0, 0, 0, 0, 0, 0],
     [0, 0, 0, 0, 0, 0, 0, 0],
     [0, 0, 0, 0, 0, 0, 0, 0],
     [0, 0, 0, 0, 0, 0, 0, 0],
     [0, 0, 0, 0, 0, 0, 0, 0],
     [0, 0, 0, 0, 0, 0, 0, 0],
     [0, 0, 0, 0, 0, 0, 0, 0],
     [0, 0, 0, 0, 0, 0, 0, 0],
     [0, 0, 0, 0, 0, 0, 0, 0],
     [0, 0, 0, 0, 0, 0, 0, 0],
     [0, 0, 0, 0, 0, 0, 0, 0],
     [0, 0, 0, 0, 0, 0, 0, 0],
     [0, 0, 0, 0, 0, 0, 0, 0],
     [0, 0, 0, 0, 0, 0, 0, 0],
     [0, 0, 0, 0, 0, 0, 0, 0],
     [0, 0, 0, 0, 0, 0, 0, 0],
     [0, 0, 0, 0, 0, 0, 0, 0],
     [0, 0, 0, 0, 0, 0, 0, 0],
     [0, 0, 0, 0, 0, 0, 0, 0],
     [0, 0, 0, 0, 0, 0, 0, 0],
     [0, 0, 0, 0, 0, 0, 0, 0],
     [0, 0, 0, 0, 0, 0, 0, 0],
     [0, 0, 0, 0, 0, 0, 0, 0],
     [0, 0, 0, 0, 0, 0, 0, 0],
     [0, 0, 0, 0, 0, 0, 0, 0],
     [0, 0, 0, 0, 0, 0, 0, 0],
     [0, 0, 0, 0, 0, 0, 0, 0],
     [0, 0, 0, 0, 0, 0, 0, 0],
     [0, 0, 0, 0, 0, 0, 0, 0],
     [0, 0, 0, 0, 0, 0, 0, 0],
     [0, 0, 0, 0, 0, 0, 0, 0],
     [0, 0, 0, 0, 0, 0, 0, 0],
     [0, 0, 0, 0, 0, 0, 0, 0],
     [0, 0, 0, 0, 0, 0, 0, 0],
     [0, 0, 0, 0, 0, 0, 0, 0],
     [0, 0, 0, 0, 0, 0, 0, 0],
     [0, 0, 0, 0, 0, 0, 0, 0],
     [0, 0, 0, 0, 0, 0, 0, 0],
     [0, 0, 0, 0, 0, 0, 0, 0],
     [0, 0, 0, 0, 0, 0, 0, 0],
     [0, 0, 0, 0, 0, 0, 0, 0],
     [0, 0, 0, 0, 0, 0, 0, 0],
     [0, 0, 0, 0, 0, 0, 0, 0],
     [0, 0, 0, 0, 0, 0, 0, 0],
     [0, 0, 0, 0, 0, 0, 0, 0],
     [0, 0, 0, 0, 0, 0, 28, 0],
     [0, 28, 13, 15, 15, 13, 15, 15],
     [13, 14, 15, 15, 15, 15, 13, 15],
     [17, 15, 13, 15, 15, 15, 13, 15],
     [15, 15, 14, 15, 15, 13, 15, 15],
     [15, 15, 15, 13, 15, 15, 15, 15],
     [15, 15, 13, 17, 14, 15, 15, 13],
     [19, 15, 15, 15, 15, 13, 15, 13],
     [15, 13, 15, 16, 15, 15, 13, 15],
     [15, 15, 15, 15, 13, 16, 15, 15],
     [15, 13, 15, 15, 15, 15, 15, 15],
     [15, 13, 15, 15, 14, 15, 15, 13],
     [13, 0, 0, 0, 0, 0, 0, 0],
     [0, 0, 0, 0, 0, 0, 0, 0],
     [0, 0, 0, 0, 0, 0, 0, 0],
     [0, 0, 0, 0, 0, 0, 0, 0],
     [0, 0, 0, 0, 0, 0, 0, 0],
     [0, 0, 0, 0, 0, 0, 0, 0],
     [0, 0, 0, 0, 0, 0, 0, 0],
     [0, 0, 0, 0, 0, 0, 0, 0],
     [0, 0, 0, 0, 0, 0, 0, 0],
     [0, 0, 0, 0, 0, 0, 0, 0],
     [0, 0, 0, 0, 0, 0, 0, 0],
     [0, 0, 0, 0, 0, 0, 0, 0],
     [0, 0, 0, 0, 0, 0, 0, 0],
     [0, 0, 0, 0, 0, 0, 0, 0],
     [0, 0, 0, 0, 0, 0, 0, 0],
     [0, 0, 0, 0, 0, 0, 0, 0],
     [0, 0, 0, 0, 0, 0, 0, 0],
     [0, 0, 0, 0, 0, 0, 0, 0],
     [0, 0, 0, 0, 0, 0, 0, 0],
     [0, 0, 0, 0, 0, 0, 0, 0],
     [0, 0, 0, 0, 0, 0, 0, 0],
     [0, 0, 0, 0, 0, 0, 0, 0],
     [0, 0, 0, 0, 0, 0, 0, 0],
     [0, 0, 0, 0, 0, 0, 0, 0],
     [0, 0, 0, 0, 0, 0, 0, 0],
     [0, 0, 0, 0, 0, 0, 0, 0],
     [0, 0, 0, 0, 0, 0, 0, 0],
     [0, 0, 0, 0, 0, 0, 0, 0],
     [0, 0, 0, 0, 0, 0, 0, 0],
     [0, 0, 0, 0, 0, 0, 0, 0],
     [0, 0, 0, 0, 0, 0, 0, 0],
     [0, 0, 0, 0, 0, 0, 0, 0],
     [0, 0, 0, 0, 0, 0, 0, 0],
     [0, 0, 0, 0, 0, 0, 0, 0],
     [0, 0, 0, 0, 0, 0, 0, 0],
     [0, 0, 0, 0, 0, 0, 0, 0],
     [0, 0, 0, 0, 0, 0, 0, 0],
     [0, 0, 0, 0, 0, 0, 0, 0],
     [0, 0, 0, 0, 0, 0, 0, 0],
     [0, 0, 0, 0, 0, 0, 0, 0],
     [0, 0, 0, 0, 0, 0, 0, 0],
     [0, 0, 0, 0, 0, 0, 0, 0],
     [0, 0, 0, 0, 0, 0, 0, 0],
     [0, 0, 0, 0, 0, 0, 0, 0],
     [0, 0, 0, 0, 0, 0, 0, 0],
     [0, 0, 0, 0, 0, 0, 0, 0],
     [0, 0, 0, 0, 0, 0, 0, 0],
     [0, 0, 0, 0, 0, 0, 0, 0],
     [0, 0, 0, 0, 0, 0, 0, 0],
     [0, 0, 0, 0, 0, 0, 0, 0],
     [0, 0, 0, 0, 0, 0, 0, 0],
     [0, 0, 0, 0, 0, 0, 0, 0],
     [0, 0, 0, 0, 0, 0, 0, 0],
     [0, 0, 0, 0, 0, 0, 0, 0],
     [0, 0, 0, 0, 0, 0, 0, 0],
     [0, 0, 0, 0, 0, 0, 0, 0],
     [0, 0, 0, 0, 0, 0, 0, 0],
     [0, 0, 0, 0, 0, 0, 0, 0],
     [0, 0, 0, 0, 0, 0, 0, 0]]"

definition smp_cond_lengths_7 :: "int list list" where
  "smp_cond_lengths_7 =
    [[0, 0, 0, 0, 0, 0, 0, 0],
     [0, 0, 0, 0, 0, 0, 0, 0],
     [0, 0, 0, 0, 0, 0, 0, 0],
     [0, 0, 0, 0, 0, 0, 0, 0],
     [0, 0, 0, 0, 0, 0, 0, 0],
     [0, 0, 0, 0, 0, 0, 0, 0],
     [0, 0, 0, 0, 0, 0, 0, 0],
     [0, 0, 0, 0, 0, 0, 0, 0],
     [0, 0, 0, 0, 0, 0, 0, 0],
     [0, 0, 0, 0, 0, 0, 0, 0],
     [0, 0, 0, 0, 0, 0, 0, 0],
     [0, 0, 0, 0, 0, 0, 0, 0],
     [0, 0, 0, 0, 0, 0, 0, 0],
     [0, 0, 0, 0, 0, 0, 0, 0],
     [0, 0, 0, 0, 0, 0, 0, 0],
     [0, 0, 0, 0, 0, 0, 0, 0],
     [0, 0, 0, 0, 0, 0, 0, 0],
     [0, 0, 0, 0, 0, 0, 0, 0],
     [0, 0, 0, 0, 0, 0, 0, 0],
     [0, 0, 0, 0, 0, 0, 0, 0],
     [0, 0, 0, 0, 0, 0, 0, 0],
     [0, 0, 0, 0, 0, 0, 0, 0],
     [0, 0, 0, 0, 0, 0, 0, 0],
     [0, 0, 0, 0, 0, 0, 0, 0],
     [0, 0, 0, 0, 0, 0, 0, 0],
     [0, 0, 0, 0, 0, 0, 0, 0],
     [0, 0, 0, 0, 0, 0, 0, 0],
     [0, 0, 0, 0, 0, 0, 0, 0],
     [0, 0, 0, 0, 0, 0, 0, 0],
     [0, 0, 0, 0, 0, 0, 0, 0],
     [0, 0, 0, 0, 0, 0, 0, 0],
     [0, 0, 0, 0, 0, 0, 0, 0],
     [0, 0, 0, 0, 0, 0, 0, 0],
     [0, 0, 0, 0, 0, 0, 0, 0],
     [0, 0, 0, 0, 0, 0, 0, 0],
     [0, 0, 0, 0, 0, 0, 0, 0],
     [0, 0, 0, 0, 0, 0, 0, 0],
     [0, 0, 0, 0, 0, 0, 0, 0],
     [0, 0, 0, 0, 0, 0, 0, 0],
     [0, 0, 0, 0, 0, 0, 0, 0],
     [0, 0, 0, 0, 0, 0, 0, 0],
     [0, 0, 0, 0, 0, 0, 0, 0],
     [0, 0, 0, 0, 0, 0, 0, 0],
     [0, 0, 0, 0, 0, 0, 0, 0],
     [0, 0, 0, 0, 0, 0, 0, 0],
     [0, 0, 0, 0, 0, 0, 0, 0],
     [0, 0, 0, 0, 0, 0, 0, 0],
     [0, 0, 0, 0, 0, 0, 0, 0],
     [0, 0, 0, 0, 0, 0, 0, 0],
     [0, 0, 0, 0, 0, 0, 0, 0],
     [0, 0, 0, 0, 0, 0, 0, 0],
     [0, 0, 0, 0, 0, 0, 0, 0],
     [0, 0, 0, 0, 0, 0, 0, 0],
     [0, 0, 0, 0, 0, 0, 0, 0],
     [0, 0, 0, 0, 0, 0, 0, 0],
     [0, 0, 0, 0, 0, 0, 0, 0],
     [0, 0, 0, 0, 0, 0, 0, 0],
     [0, 0, 0, 0, 0, 0, 0, 0],
     [0, 0, 0, 0, 0, 0, 0, 0],
     [0, 0, 0, 0, 0, 0, 0, 0],
     [0, 0, 0, 0, 0, 0, 0, 0]]"

definition smp_key_offsets_1 :: "int list list" where
  "smp_key_offsets_1 =
    [[0, 0, 29, 30, 59, 60, 75, 83],
     [93, 110, 114, 116, 118, 120, 121, 123],
     [126, 128, 131, 132, 169, 170, 187, 190],
     [206, 222, 224, 226, 228, 230, 232, 233],
     [272, 295, 314, 333, 350, 369, 388, 405],
     [408, 427, 428, 430, 448, 464, 480, 497],
     [516, 535, 556, 575, 594, 611, 614, 648],
     [649, 688, 722, 723, 762, 779, 797, 815],
     [833, 852, 887, 916, 938, 960, 990, 1012],
     [1034, 1060, 1085, 1109, 1134, 1156, 1185, 1209],
     [1235, 1257, 1276, 1295, 1313, 1332, 1367, 1400],
     [1422, 1444, 1477, 1509, 1531, 1553, 1571, 1589],
     [1590, 1629, 1647, 1681, 1682, 1721, 1755, 1786],
     [1817, 1818, 1857, 1888, 1907, 1910, 1935, 1936],
     [1938, 1963, 1964, 1966, 1969, 1977, 1987, 2003],
     [2017, 2030, 2036, 2042, 2056, 2062, 2068, 2078],
     [2087, 2095, 2104, 2110, 2122, 2130, 2139, 2145],
     [2148, 2151, 2153, 2155, 2159, 2160, 2199, 2203],
     [2204, 2243, 2246, 2265, 2266, 2268, 2286, 2305],
     [2310, 2311, 2313, 2317, 2336, 2337, 2339, 2357],
     [2375, 2379, 2380, 2382, 2398, 2400, 2402, 2404],
     [2406, 2408, 2409, 2411, 2415, 2421, 2428, 2435],
     [2442, 2449, 2450, 2457, 2464, 2471, 2478, 2479],
     [2486, 2493, 2500, 2507, 2508, 2515, 2522, 2529],
     [2536, 2537, 2544, 2551, 2558, 2565, 2566, 2573],
     [2580, 2587, 2594, 2595, 2605, 2613, 2618, 2619],
     [2624, 2625, 2630, 2631, 2634, 2637, 2643, 2646],
     [2649, 2652, 2658, 2661, 2664, 2667, 2673, 2676],
     [2683, 2690, 2691, 2698, 2705, 2712, 2719, 2727],
     [2735, 2743, 2754, 2764, 2772, 2780, 2787, 2794],
     [2804, 2813, 2821, 2829, 2831, 2837, 2846, 2855],
     [2864, 2876, 2887, 2896, 2905, 2913, 2923, 2932],
     [2940, 2948, 2950, 2959, 2968, 2977, 2986, 2998],
     [3009, 3018, 3027, 3035, 3045, 3054, 3062, 3070],
     [3072, 3081, 3090, 3099, 3108, 3120, 3131, 3140],
     [3149, 3157, 3167, 3176, 3184, 3192, 3194, 3203],
     [3212, 3221, 3230, 3242, 3253, 3262, 3271, 3279],
     [3289, 3298, 3306, 3314, 3316, 3325, 3334, 3343],
     [3352, 3364, 3375, 3384, 3393, 3401, 3402, 3412],
     [3421, 3429, 3437, 3439, 3448, 3457, 3466, 3475],
     [3487, 3498, 3507, 3516, 3524, 3525, 3564, 3581],
     [3584, 3601, 3602, 3641, 3658, 3674, 3678, 3679],
     [3681, 3684, 3701, 3702, 3704, 3720, 3721, 3760],
     [3777, 3780, 3785, 3786, 3788, 3792, 3795, 3798],
     [3801, 3804, 3807, 3810, 3813, 3816, 3817, 3836],
     [3855, 3872, 3891, 3910, 3929, 3948, 3967, 3986],
     [4005, 4024, 4041, 4044, 4049, 4050, 4052, 4056],
     [4059, 4062, 4065, 4066, 4085, 4104, 4123, 4142],
     [4159, 4178, 4197, 4216, 4235, 4254, 4273, 4292],
     [4309, 4312, 4329, 4330, 4332, 4348, 4364, 4368],
     [4369, 4371, 4374, 4391, 4392, 4394, 4410, 4411],
     [4450, 4471, 4490, 4509, 4528, 4547, 4566, 4583],
     [4586, 4603, 4604, 4606, 4622, 4638, 4642, 4643],
     [4645, 4648, 4665, 4666, 4668, 4684, 4685, 4724],
     [4743, 4762, 4781, 4800, 4819, 4838, 4857, 4876],
     [4895, 4898, 4923, 4924, 4926, 4951, 4952, 4954],
     [4957, 4965, 4975, 4991, 5005, 5018, 5024, 5030],
     [5044, 5050, 5056, 5066, 5075, 5083, 5092, 5098],
     [5110, 5118, 5127, 5133, 5136, 5139, 5141, 5143],
     [5147, 5148, 5187, 5191, 5192, 5231, 5234, 5253],
     [5254, 5256, 5274, 5293, 5298, 5299, 5301, 5305],
     [5324, 5325, 5327, 5345, 5363, 5367, 5368, 5370],
     [5386, 5388, 5390, 5392, 5394, 5396, 5397, 5399],
     [5403, 5409, 5416, 5423, 5430, 5437, 5438, 5445],
     [5452, 5459, 5466, 5467, 5474, 5481, 5488, 5495],
     [5496, 5503, 5510, 5517, 5524, 5525, 5532, 5539],
     [5546, 5553, 5554, 5561, 5568, 5575, 5582, 5583],
     [5593, 5601, 5606, 5607, 5612, 5613, 5618, 5619],
     [5622, 5625, 5631, 5634, 5637, 5640, 5646, 5649],
     [5652, 5655, 5661, 5664, 5671, 5678, 5679, 5686],
     [5693, 5700, 5707, 5715, 5723, 5731, 5742, 5752],
     [5760, 5768, 5775, 5782, 5792, 5801, 5809, 5817],
     [5819, 5825, 5834, 5843, 5852, 5864, 5875, 5884],
     [5893, 5901, 5911, 5920, 5928, 5936, 5938, 5947],
     [5956, 5965, 5974, 5986, 5997, 6006, 6015, 6023],
     [6033, 6042, 6050, 6058, 6060, 6069, 6078, 6087],
     [6096, 6108, 6119, 6128, 6137, 6145, 6155, 6164],
     [6172, 6180, 6182, 6191, 6200, 6209, 6218, 6230],
     [6241, 6250, 6259, 6267, 6277, 6286, 6294, 6302],
     [6304, 6313, 6322, 6331, 6340, 6352, 6363, 6372],
     [6381, 6389, 6390, 6400, 6409, 6417, 6425, 6427],
     [6436, 6445, 6454, 6463, 6475, 6486, 6495, 6504],
     [6512, 6513, 6552, 6571, 6574, 6591, 6592, 6594],
     [6610, 6626, 6630, 6631, 6633, 6636, 6653, 6654],
     [6656, 6672, 6688, 6692, 6693, 6695, 6698, 6715],
     [6716, 6718, 6734, 6751, 6764, 6765, 6767, 6779],
     [6788, 6796, 6805, 6811, 6826, 6832, 6833, 6835],
     [6840, 6857, 6858, 6860, 6876, 6885, 6886, 6888],
     [6896, 6899, 6902, 6904, 6909, 6914, 6915, 6917],
     [6921, 6944, 6945, 6947, 6969, 6987, 6993, 6994],
     [6996, 7001, 7020, 7021, 7023, 7041, 7058, 7059],
     [7098, 7114, 7116, 7118, 7120, 7122, 7124, 7125],
     [7127, 7132, 7138, 7145, 7152, 7159, 7166, 7167],
     [7174, 7181, 7188, 7195, 7196, 7203, 7210, 7217],
     [7224, 7225, 7232, 7239, 7246, 7253, 7254, 7261],
     [7268, 7275, 7282, 7283, 7290, 7297, 7304, 7311],
     [7312, 7322, 7330, 7335, 7336, 7341, 7342, 7347],
     [7348, 7351, 7354, 7360, 7363, 7366, 7369, 7375],
     [7378, 7381, 7384, 7390, 7393, 7400, 7407, 7408],
     [7415, 7422, 7429, 7436, 7444, 7452, 7460, 7471],
     [7481, 7489, 7497, 7504, 7511, 7521, 7530, 7538],
     [7546, 7548, 7554, 7563, 7572, 7581, 7593, 7604],
     [7613, 7622, 7630, 7640, 7649, 7657, 7665, 7667],
     [7676, 7685, 7694, 7703, 7715, 7726, 7735, 7744],
     [7752, 7762, 7771, 7779, 7787, 7789, 7798, 7807],
     [7816, 7825, 7837, 7848, 7857, 7866, 7874, 7884],
     [7893, 7901, 7909, 7911, 7920, 7929, 7938, 7947],
     [7959, 7970, 7979, 7988, 7996, 8006, 8015, 8023],
     [8031, 8033, 8042, 8051, 8060, 8069, 8081, 8092],
     [8101, 8110, 8118, 8119, 8129, 8138, 8146, 8154],
     [8156, 8165, 8174, 8183, 8192, 8204, 8215, 8224],
     [8233, 8241, 8242, 8281, 8301, 8321, 8341, 8361],
     [8379, 8385, 8386, 8388, 8393, 8410, 8411, 8413],
     [8429, 8446, 8447, 8486, 8506, 8526, 8546, 8566],
     [8586, 8604, 8608, 8609, 8611, 8614, 8632, 8633],
     [8635, 8652, 8669, 8687, 8705, 8723, 8741, 8759],
     [8777, 8794, 8816, 8836, 8856, 8876, 8896, 8916],
     [8936, 8954, 8958, 8959, 8961, 8964, 8977, 8978],
     [8980, 8992, 9000, 9005, 9006, 9011, 9012, 9017],
     [9022, 9029, 9036, 9046, 9053, 9056, 9059, 9065],
     [9068, 9071, 9074, 9080, 9083, 9090, 9097, 9098],
     [9105, 9112, 9119, 9126, 9127, 9134, 9141, 9148],
     [9155, 9156, 9163, 9170, 9177, 9184, 9185, 9192],
     [9199, 9206, 9213, 9214, 9221, 9228, 9235, 9242],
     [9243, 9253, 9261, 9268, 9275, 9276, 9283, 9294],
     [9305, 9316, 9324, 9332, 9340, 9351, 9361, 9369],
     [9377, 9388, 9395, 9409, 9422, 9434, 9446, 9452],
     [9458, 9471, 9484, 9497, 9513, 9528, 9541, 9554],
     [9566, 9580, 9593, 9605, 9617, 9623, 9632, 9645],
     [9658, 9671, 9687, 9702, 9715, 9728, 9740, 9754],
     [9767, 9779, 9791, 9797, 9806, 9819, 9832, 9845],
     [9861, 9876, 9889, 9902, 9914, 9928, 9941, 9953],
     [9965, 9971, 9980, 9993, 10006, 10019, 10035, 10050],
     [10063, 10076, 10088, 10102, 10115, 10127, 10139, 10145],
     [10154, 10167, 10180, 10193, 10209, 10224, 10237, 10250],
     [10262, 10270, 10278, 10286, 10297, 10307, 10315, 10323],
     [10324, 10338, 10351, 10363, 10375, 10381, 10390, 10403],
     [10416, 10429, 10445, 10460, 10473, 10486, 10498, 10505],
     [10525, 10545, 10565, 10583, 10589, 10590, 10592, 10597],
     [10606, 10607, 10609, 10617, 10620, 10623, 10625, 10630],
     [10637, 10644, 10651, 10658, 10668, 10678, 10688, 10695],
     [10696, 10735, 10742, 10749, 10756, 10763, 10773, 10783],
     [10793, 10800, 10801, 10840, 10848, 10860, 10869, 10878],
     [10887, 10896, 10905, 10920, 10935, 10950, 10968, 10985],
     [10994, 11003, 11015, 11026, 11035, 11044, 11056, 11067],
     [11076, 11085, 11097, 11108, 11115, 11122, 11129, 11136],
     [11137, 11144, 11151, 11158, 11165, 11166, 11173, 11180],
     [11187, 11194, 11195, 11202, 11209, 11216, 11223, 11224],
     [11231, 11238, 11245, 11252, 11253, 11260, 11267, 11274],
     [11281, 11282, 11292, 11300, 11305, 11306, 11311, 11312]]"

definition smp_key_offsets_2 :: "int list list" where
  "smp_key_offsets_2 =
    [[11317, 11318, 11324, 11327, 11330, 11336, 11339, 11342],
     [11345, 11351, 11354, 11357, 11360, 11366, 11369, 11376],
     [11383, 11384, 11391, 11398, 11405, 11412, 11420, 11428],
     [11436, 11447, 11457, 11465, 11473, 11480, 11487, 11497],
     [11506, 11514, 11522, 11524, 11530, 11539, 11548, 11557],
     [11569, 11580, 11589, 11598, 11606, 11616, 11625, 11633],
     [11641, 11643, 11652, 11661, 11670, 11679, 11691, 11702],
     [11711, 11720, 11728, 11738, 11747, 11755, 11763, 11765],
     [11774, 11783, 11792, 11801, 11813, 11824, 11833, 11842],
     [11850, 11860, 11869, 11877, 11885, 11887, 11896, 11905],
     [11914, 11923, 11935, 11946, 11955, 11964, 11972, 11982],
     [11991, 11999, 12007, 12009, 12018, 12027, 12036, 12045],
     [12057, 12068, 12077, 12086, 12094, 12095, 12105, 12114],
     [12122, 12130, 12132, 12141, 12150, 12159, 12168, 12180],
     [12191, 12200, 12209, 12217, 12236, 12253, 12274, 12295],
     [12314, 12319, 12320, 12322, 12326, 12345, 12346, 12348],
     [12366, 12384, 12385, 12424, 12435, 12441, 12447, 12451],
     [12455, 12459, 12463, 12470, 12477, 12484, 12488, 12497],
     [12506, 12515, 12524, 12533, 12545, 12557, 12569, 12584],
     [12598, 12607, 12616, 12628, 12639, 12648, 12657, 12669],
     [12680, 12689, 12698, 12710, 12721, 12728, 12735, 12742],
     [12749, 12750, 12757, 12764, 12771, 12778, 12779, 12786],
     [12793, 12800, 12807, 12808, 12815, 12822, 12829, 12836],
     [12837, 12844, 12851, 12858, 12865, 12866, 12873, 12880],
     [12887, 12894, 12895, 12905, 12913, 12918, 12919, 12924],
     [12925, 12930, 12931, 12934, 12937, 12940, 12946, 12949],
     [12952, 12955, 12961, 12964, 12967, 12970, 12976, 12979],
     [12986, 12993, 12994, 13001, 13008, 13015, 13022, 13030],
     [13038, 13046, 13057, 13067, 13075, 13083, 13090, 13097],
     [13107, 13116, 13124, 13132, 13134, 13140, 13149, 13158],
     [13167, 13179, 13190, 13199, 13208, 13216, 13226, 13235],
     [13243, 13251, 13253, 13262, 13271, 13280, 13289, 13301],
     [13312, 13321, 13330, 13338, 13348, 13357, 13365, 13373],
     [13375, 13384, 13393, 13402, 13411, 13423, 13434, 13443],
     [13452, 13460, 13470, 13479, 13487, 13495, 13497, 13506],
     [13515, 13524, 13533, 13545, 13556, 13565, 13574, 13582],
     [13592, 13601, 13609, 13617, 13619, 13628, 13637, 13646],
     [13655, 13667, 13678, 13687, 13696, 13704, 13705, 13715],
     [13724, 13732, 13740, 13742, 13751, 13760, 13769, 13778],
     [13790, 13801, 13810, 13819, 13827, 13833, 13839, 13855],
     [13861, 13867, 13879, 13894, 13909, 13923, 13936, 13942],
     [13948, 13962, 13968, 13974, 13984, 13993, 14001, 14010],
     [14016, 14029, 14037, 14047, 14053, 14056, 14059, 14061],
     [14064, 14069, 14074, 14079, 14084, 14092, 14100, 14108],
     [14113, 14122, 14131, 14140, 14149, 14158, 14171, 14184],
     [14197, 14213, 14228, 14237, 14246, 14258, 14269, 14278],
     [14287, 14299, 14310, 14319, 14328, 14340, 14351, 14358],
     [14365, 14372, 14379, 14380, 14387, 14394, 14401, 14408],
     [14409, 14416, 14423, 14430, 14437, 14438, 14445, 14452],
     [14459, 14466, 14467, 14474, 14481, 14488, 14495, 14496],
     [14503, 14510, 14517, 14524, 14525, 14535, 14543, 14548],
     [14549, 14554, 14555, 14560, 14561, 14565, 14568, 14571],
     [14577, 14580, 14583, 14586, 14592, 14595, 14598, 14601],
     [14607, 14610, 14617, 14624, 14625, 14632, 14639, 14646],
     [14653, 14661, 14669, 14677, 14688, 14698, 14706, 14714],
     [14721, 14728, 14738, 14747, 14755, 14763, 14765, 14771],
     [14780, 14789, 14798, 14810, 14821, 14830, 14839, 14847],
     [14857, 14866, 14874, 14882, 14884, 14893, 14902, 14911],
     [14920, 14932, 14943, 14952, 14961, 14969, 14979, 14988],
     [14996, 15004, 15006, 15015, 15024, 15033, 15042, 15054],
     [15065, 15074, 15083, 15091, 15101, 15110, 15118, 15126],
     [15128, 15137, 15146, 15155, 15164, 15176, 15187, 15196],
     [15205, 15213, 15223, 15232, 15240, 15248, 15250, 15259],
     [15268, 15277, 15286, 15298, 15309, 15318, 15327, 15335],
     [15336, 15346, 15355, 15363, 15371, 15373, 15382, 15391],
     [15400, 15409, 15421, 15432, 15441, 15450, 15458, 15464],
     [15470, 15486, 15492, 15498, 15510, 15522, 15534, 15546],
     [15565, 15578, 15584, 15590, 15604, 15610, 15616, 15626],
     [15635, 15643, 15652, 15658, 15671, 15679, 15689, 15695],
     [15698, 15701, 15703, 15706, 15725, 15742, 15748, 15754],
     [15771, 15787, 15793, 15799, 15814, 15830, 15836, 15842],
     [15858, 15864, 15870, 15883, 15902, 15919, 15942, 15964],
     [15987, 16004, 16027, 16048, 16065, 16084, 16103, 16120],
     [16143, 16165, 16188, 16205, 16228, 16247, 16266, 16285],
     [16304, 16323, 16342, 16361, 16380, 16397, 16428, 16450],
     [16473, 16490, 16513, 16537, 16561, 16585, 16607, 16633],
     [16657, 16679, 16703, 16725, 16749, 16773, 16795, 16819],
     [16843, 16865, 16870, 16875, 16880, 16885, 16893, 16901],
     [16909, 16914, 16923, 16932, 16941, 16950, 16959, 16972],
     [16985, 16998, 17014, 17029, 17038, 17047, 17059, 17070],
     [17079, 17088, 17100, 17111, 17120, 17129, 17141, 17152],
     [17159, 17166, 17173, 17180, 17181, 17188, 17195, 17202],
     [17209, 17210, 17217, 17224, 17231, 17238, 17239, 17246],
     [17253, 17260, 17267, 17268, 17275, 17282, 17289, 17296],
     [17297, 17304, 17311, 17318, 17325, 17326, 17336, 17344],
     [17349, 17350, 17355, 17356, 17361, 17362, 17366, 17369],
     [17372, 17378, 17381, 17384, 17387, 17393, 17396, 17399],
     [17402, 17408, 17411, 17418, 17425, 17426, 17433, 17440],
     [17447, 17454, 17462, 17470, 17478, 17489, 17499, 17507],
     [17515, 17522, 17529, 17539, 17548, 17556, 17564, 17566],
     [17572, 17581, 17590, 17599, 17611, 17622, 17631, 17640],
     [17648, 17658, 17667, 17675, 17683, 17685, 17694, 17703],
     [17712, 17721, 17733, 17744, 17753, 17762, 17770, 17780],
     [17789, 17797, 17805, 17807, 17816, 17825, 17834, 17843],
     [17855, 17866, 17875, 17884, 17892, 17902, 17911, 17919],
     [17927, 17929, 17938, 17947, 17956, 17965, 17977, 17988],
     [17997, 18006, 18014, 18024, 18033, 18041, 18049, 18051],
     [18060, 18069, 18078, 18087, 18099, 18110, 18119, 18128],
     [18136, 18137, 18147, 18156, 18164, 18172, 18174, 18183],
     [18192, 18201, 18210, 18222, 18233, 18242, 18251, 18259],
     [18278, 18296, 18315, 18332, 18352, 18370, 18388, 18406],
     [18421, 18436, 18451, 18467, 18483, 18499, 18515, 18531],
     [18550, 18569, 18588, 18606, 18631, 18651, 18657, 18663],
     [18683, 18689, 18695, 18715, 18735, 18741, 18747, 18764],
     [18784, 18804, 18810, 18816, 18836, 18856, 18862, 18868],
     [18887, 18893, 18899, 18919, 18925, 18931, 18950, 18970],
     [18976, 18982, 19001, 19023, 19043, 19067, 19091, 19114],
     [19137, 19161, 19181, 19203, 19225, 19245, 19269, 19293],
     [19316, 19339, 19361, 19383, 19405, 19427, 19449, 19471],
     [19493, 19515, 19535, 19567, 19591, 19614, 19637, 19663],
     [19689, 19715, 19739, 19767, 19793, 19817, 19843, 19867],
     [19893, 19919, 19943, 19969, 19995, 20019, 20039, 20058],
     [20078, 20097, 20117, 20137, 20157, 20177, 20200, 20222],
     [20241, 20260, 20282, 20303, 20322, 20341, 20363, 20384],
     [20403, 20422, 20444, 20465, 20475, 20487, 20499, 20509],
     [20522, 20535, 20544, 20554, 20567, 20582, 20588, 20594],
     [20606, 20618, 20630, 20642, 20652, 20664, 20676, 20688],
     [20700, 20712, 20724, 20736, 20746, 20764, 20787, 20808],
     [20828, 20848, 20867, 20887, 20907, 20926, 20938, 20944],
     [20952, 20970, 20988, 20989, 20991, 21008, 21024, 21026],
     [21028, 21030, 21032, 21034, 21035, 21037, 21041, 21045],
     [21051, 21072, 21094, 21114, 21129, 21135, 21141, 21157],
     [21163, 21169, 21179, 21188, 21196, 21205, 21211, 21225],
     [21233, 21244, 21250, 21253, 21256, 21258, 21262, 21268],
     [21274, 21280, 21286, 21295, 21304, 21313, 21319, 21328],
     [21337, 21346, 21355, 21364, 21378, 21392, 21406, 21423],
     [21439, 21448, 21457, 21469, 21480, 21489, 21498, 21510],
     [21521, 21530, 21539, 21551, 21562, 21569, 21576, 21583],
     [21590, 21591, 21598, 21605, 21612, 21619, 21620, 21627],
     [21634, 21641, 21648, 21649, 21656, 21663, 21670, 21677],
     [21678, 21685, 21692, 21699, 21706, 21707, 21714, 21721],
     [21728, 21735, 21736, 21746, 21754, 21759, 21760, 21765],
     [21766, 21771, 21772, 21777, 21780, 21783, 21789, 21792],
     [21795, 21798, 21804, 21807, 21810, 21813, 21819, 21822],
     [21829, 21836, 21837, 21844, 21851, 21858, 21865, 21873],
     [21881, 21889, 21900, 21910, 21918, 21926, 21933, 21940],
     [21950, 21959, 21967, 21975, 21977, 21983, 21992, 22001],
     [22010, 22022, 22033, 22042, 22051, 22059, 22069, 22078],
     [22086, 22094, 22096, 22105, 22114, 22123, 22132, 22144],
     [22155, 22164, 22173, 22181, 22191, 22200, 22208, 22216],
     [22218, 22227, 22236, 22245, 22254, 22266, 22277, 22286],
     [22295, 22303, 22313, 22322, 22330, 22338, 22340, 22349],
     [22358, 22367, 22376, 22388, 22399, 22408, 22417, 22425],
     [22435, 22444, 22452, 22460, 22462, 22471, 22480, 22489],
     [22498, 22510, 22521, 22530, 22539, 22547, 22548, 22558],
     [22567, 22575, 22583, 22585, 22594, 22603, 22612, 22621],
     [22633, 22644, 22653, 22662, 22670, 22676, 22682, 22702],
     [22708, 22714, 22731, 22737, 22743, 22761, 22782, 22803],
     [22823, 22838, 22844, 22850, 22866, 22872, 22878, 22888],
     [22897, 22905, 22914, 22920, 22935, 22943, 22955, 22961]]"

definition smp_key_offsets_3 :: "int list list" where
  "smp_key_offsets_3 =
    [[22964, 22967, 22969, 22974, 22981, 22988, 22995, 23002],
     [23012, 23022, 23032, 23039, 23048, 23057, 23066, 23075],
     [23084, 23099, 23114, 23129, 23147, 23164, 23173, 23182],
     [23194, 23205, 23214, 23223, 23235, 23246, 23255, 23264],
     [23276, 23287, 23294, 23301, 23308, 23315, 23316, 23323],
     [23330, 23337, 23344, 23345, 23352, 23359, 23366, 23373],
     [23374, 23381, 23388, 23395, 23402, 23403, 23410, 23417],
     [23424, 23431, 23432, 23439, 23446, 23453, 23460, 23461],
     [23471, 23479, 23484, 23485, 23490, 23491, 23496, 23497],
     [23503, 23506, 23509, 23515, 23518, 23521, 23524, 23530],
     [23533, 23536, 23539, 23545, 23548, 23555, 23562, 23563],
     [23570, 23577, 23584, 23591, 23599, 23607, 23615, 23626],
     [23636, 23644, 23652, 23659, 23666, 23676, 23685, 23693],
     [23701, 23703, 23709, 23718, 23727, 23736, 23748, 23759],
     [23768, 23777, 23785, 23795, 23804, 23812, 23820, 23822],
     [23831, 23840, 23849, 23858, 23870, 23881, 23890, 23899],
     [23907, 23917, 23926, 23934, 23942, 23944, 23953, 23962],
     [23971, 23980, 23992, 24003, 24012, 24021, 24029, 24039],
     [24048, 24056, 24064, 24066, 24075, 24084, 24093, 24102],
     [24114, 24125, 24134, 24143, 24151, 24161, 24170, 24178],
     [24186, 24188, 24197, 24206, 24215, 24224, 24236, 24247],
     [24256, 24265, 24273, 24274, 24284, 24293, 24301, 24309],
     [24311, 24320, 24329, 24338, 24347, 24359, 24370, 24379],
     [24388, 24396, 24402, 24408, 24428, 24434, 24440, 24458],
     [24481, 24504, 24527, 24546, 24561, 24567, 24573, 24589],
     [24595, 24601, 24611, 24620, 24628, 24637, 24643, 24657],
     [24665, 24676, 24682, 24685, 24688, 24690, 24694, 24700],
     [24706, 24712, 24718, 24727, 24736, 24745, 24751, 24760],
     [24769, 24778, 24787, 24796, 24810, 24824, 24838, 24855],
     [24871, 24880, 24889, 24901, 24912, 24921, 24930, 24942],
     [24953, 24962, 24971, 24983, 24994, 25001, 25008, 25015],
     [25022, 25023, 25030, 25037, 25044, 25051, 25052, 25059],
     [25066, 25073, 25080, 25081, 25088, 25095, 25102, 25109],
     [25110, 25117, 25124, 25131, 25138, 25139, 25146, 25153],
     [25160, 25167, 25168, 25178, 25186, 25191, 25192, 25197],
     [25198, 25203, 25204, 25209, 25212, 25215, 25221, 25224],
     [25227, 25230, 25236, 25239, 25242, 25245, 25251, 25254],
     [25261, 25268, 25269, 25276, 25283, 25290, 25297, 25305],
     [25313, 25321, 25332, 25342, 25350, 25358, 25365, 25372],
     [25382, 25391, 25399, 25407, 25409, 25415, 25424, 25433],
     [25442, 25454, 25465, 25474, 25483, 25491, 25501, 25510],
     [25518, 25526, 25528, 25537, 25546, 25555, 25564, 25576],
     [25587, 25596, 25605, 25613, 25623, 25632, 25640, 25648],
     [25650, 25659, 25668, 25677, 25686, 25698, 25709, 25718],
     [25727, 25735, 25745, 25754, 25762, 25770, 25772, 25781],
     [25790, 25799, 25808, 25820, 25831, 25840, 25849, 25857],
     [25867, 25876, 25884, 25892, 25894, 25903, 25912, 25921],
     [25930, 25942, 25953, 25962, 25971, 25979, 25980, 25990],
     [25999, 26007, 26015, 26017, 26026, 26035, 26044, 26053],
     [26065, 26076, 26085, 26094, 26102, 26120, 26138, 26156],
     [26173, 26195, 26213, 26234, 26254, 26271, 26288, 26305],
     [26325, 26345, 26365, 26385, 26405, 26428, 26451, 26474],
     [26496, 26516, 26534, 26554, 26572, 26592, 26614, 26636],
     [26658, 26683, 26707, 26725, 26743, 26764, 26784, 26802],
     [26820, 26841, 26861, 26879, 26897, 26918, 26938, 26959],
     [26982, 27005, 27026, 27039, 27054, 27066, 27072, 27082],
     [27099, 27118, 27137, 27156, 27173, 27176, 27195, 27196],
     [27198, 27217, 27218, 27220, 27223, 27225, 27227, 27229],
     [27232, 27251, 27264, 27270, 27276, 27290, 27296, 27302],
     [27312, 27321, 27329, 27338, 27344, 27357, 27365, 27375],
     [27381, 27384, 27387, 27389, 27392, 27411, 27428, 27434],
     [27440, 27457, 27473, 27479, 27485, 27490, 27495, 27496],
     [27498, 27502, 27521, 27522, 27524, 27543, 27561, 27579],
     [27580, 27582, 27599, 27615, 27617, 27619, 27621, 27623],
     [27625, 27626, 27628, 27632, 27636, 27642, 27659, 27660],
     [27662, 27678, 27696, 27702, 27703, 27705, 27710, 27729],
     [27730, 27732, 27750, 27767, 27768, 27807, 27823, 27825],
     [27827, 27829, 27831, 27833, 27834, 27836, 27842, 27849],
     [27856, 27863, 27870, 27871, 27878, 27885, 27892, 27899],
     [27900, 27907, 27914, 27921, 27928, 27929, 27936, 27943],
     [27950, 27957, 27958, 27965, 27972, 27979, 27986, 27987],
     [27994, 28001, 28008, 28015, 28016, 28026, 28034, 28039],
     [28040, 28045, 28046, 28051, 28052, 28055, 28058, 28064],
     [28067, 28070, 28073, 28079, 28082, 28085, 28088, 28094],
     [28097, 28104, 28111, 28112, 28119, 28126, 28133, 28140],
     [28148, 28156, 28164, 28175, 28185, 28193, 28201, 28208],
     [28215, 28225, 28234, 28242, 28250, 28252, 28258, 28267],
     [28276, 28285, 28297, 28308, 28317, 28326, 28334, 28344],
     [28353, 28361, 28369, 28371, 28380, 28389, 28398, 28407],
     [28419, 28430, 28439, 28448, 28456, 28466, 28475, 28483],
     [28491, 28493, 28502, 28511, 28520, 28529, 28541, 28552],
     [28561, 28570, 28578, 28588, 28597, 28605, 28613, 28615],
     [28624, 28633, 28642, 28651, 28663, 28674, 28683, 28692],
     [28700, 28710, 28719, 28727, 28735, 28737, 28746, 28755],
     [28764, 28773, 28785, 28796, 28805, 28814, 28822, 28823],
     [28833, 28842, 28850, 28858, 28860, 28869, 28878, 28887],
     [28896, 28908, 28919, 28928, 28937, 28945, 28946, 28985],
     [29000, 29016, 29022, 29028, 29044, 29050, 29056, 29069],
     [29088, 29105, 29128, 29150, 29173, 29190, 29213, 29234],
     [29251, 29270, 29289, 29306, 29329, 29351, 29374, 29391],
     [29414, 29433, 29452, 29471, 29490, 29509, 29528, 29547],
     [29566, 29583, 29614, 29636, 29659, 29676, 29699, 29723],
     [29747, 29771, 29793, 29819, 29843, 29865, 29889, 29911],
     [29935, 29959, 29981, 30005, 30029, 30051, 30056, 30061],
     [30066, 30071, 30079, 30087, 30095, 30100, 30109, 30118],
     [30127, 30136, 30145, 30158, 30171, 30184, 30200, 30215],
     [30224, 30233, 30245, 30256, 30265, 30274, 30286, 30297],
     [30306, 30315, 30327, 30338, 30345, 30352, 30359, 30366],
     [30367, 30374, 30381, 30388, 30395, 30396, 30403, 30410],
     [30417, 30424, 30425, 30432, 30439, 30446, 30453, 30454],
     [30461, 30468, 30475, 30482, 30483, 30490, 30497, 30504],
     [30511, 30512, 30522, 30530, 30535, 30536, 30541, 30542],
     [30547, 30548, 30552, 30555, 30558, 30564, 30567, 30570],
     [30573, 30579, 30582, 30585, 30588, 30594, 30597, 30604],
     [30611, 30612, 30619, 30626, 30633, 30640, 30648, 30656],
     [30664, 30675, 30685, 30693, 30701, 30708, 30715, 30725],
     [30734, 30742, 30750, 30752, 30758, 30767, 30776, 30785],
     [30797, 30808, 30817, 30826, 30834, 30844, 30853, 30861],
     [30869, 30871, 30880, 30889, 30898, 30907, 30919, 30930],
     [30939, 30948, 30956, 30966, 30975, 30983, 30991, 30993],
     [31002, 31011, 31020, 31029, 31041, 31052, 31061, 31070],
     [31078, 31088, 31097, 31105, 31113, 31115, 31124, 31133],
     [31142, 31151, 31163, 31174, 31183, 31192, 31200, 31210],
     [31219, 31227, 31235, 31237, 31246, 31255, 31264, 31273],
     [31285, 31296, 31305, 31314, 31322, 31323, 31333, 31342],
     [31350, 31358, 31360, 31369, 31378, 31387, 31396, 31408],
     [31419, 31428, 31437, 31445, 31464, 31482, 31501, 31518],
     [31538, 31556, 31574, 31592, 31607, 31622, 31637, 31653],
     [31669, 31685, 31701, 31717, 31736, 31755, 31774, 31792],
     [31817, 31837, 31843, 31849, 31869, 31875, 31881, 31901],
     [31921, 31927, 31933, 31950, 31970, 31990, 31996, 32002],
     [32022, 32042, 32048, 32054, 32073, 32079, 32085, 32105],
     [32111, 32117, 32136, 32156, 32162, 32168, 32187, 32209],
     [32229, 32253, 32277, 32300, 32323, 32347, 32367, 32389],
     [32411, 32431, 32455, 32479, 32502, 32525, 32547, 32569],
     [32591, 32613, 32635, 32657, 32679, 32701, 32721, 32753],
     [32777, 32800, 32823, 32849, 32875, 32901, 32925, 32953],
     [32979, 33003, 33029, 33053, 33079, 33105, 33129, 33155],
     [33181, 33205, 33225, 33244, 33264, 33283, 33303, 33323],
     [33343, 33363, 33386, 33408, 33427, 33446, 33468, 33489],
     [33508, 33527, 33549, 33570, 33589, 33608, 33630, 33651],
     [33652, 33673, 33694, 33713, 33718, 33719, 33721, 33725],
     [33744, 33745, 33747, 33765, 33783, 33784, 33823, 33834],
     [33840, 33846, 33850, 33854, 33858, 33862, 33869, 33876],
     [33883, 33887, 33896, 33905, 33914, 33923, 33932, 33944],
     [33956, 33968, 33983, 33997, 34006, 34015, 34027, 34038],
     [34047, 34056, 34068, 34079, 34088, 34097, 34109, 34120],
     [34127, 34134, 34141, 34148, 34149, 34156, 34163, 34170],
     [34177, 34178, 34185, 34192, 34199, 34206, 34207, 34214],
     [34221, 34228, 34235, 34236, 34243, 34250, 34257, 34264],
     [34265, 34272, 34279, 34286, 34293, 34294, 34304, 34312],
     [34317, 34318, 34323, 34324, 34329, 34330, 34333, 34336],
     [34339, 34345, 34348, 34351, 34354, 34360, 34363, 34366],
     [34369, 34375, 34378, 34385, 34392, 34393, 34400, 34407],
     [34414, 34421, 34429, 34437, 34445, 34456, 34466, 34474],
     [34482, 34489, 34496, 34506, 34515, 34523, 34531, 34533],
     [34539, 34548, 34557, 34566, 34578, 34589, 34598, 34607],
     [34615, 34625, 34634, 34642, 34650, 34652, 34661, 34670],
     [34679, 34688, 34700, 34711, 34720, 34729, 34737, 34747],
     [34756, 34764, 34772, 34774, 34783, 34792, 34801, 34810]]"

definition smp_key_offsets_4 :: "int list list" where
  "smp_key_offsets_4 =
    [[34822, 34833, 34842, 34851, 34859, 34869, 34878, 34886],
     [34894, 34896, 34905, 34914, 34923, 34932, 34944, 34955],
     [34964, 34973, 34981, 34991, 35000, 35008, 35016, 35018],
     [35027, 35036, 35045, 35054, 35066, 35077, 35086, 35095],
     [35103, 35104, 35114, 35123, 35131, 35139, 35141, 35150],
     [35159, 35168, 35177, 35189, 35200, 35209, 35218, 35226],
     [35232, 35238, 35254, 35260, 35266, 35278, 35293, 35308],
     [35322, 35335, 35341, 35347, 35361, 35367, 35373, 35383],
     [35392, 35400, 35409, 35415, 35428, 35436, 35446, 35452],
     [35455, 35458, 35460, 35463, 35468, 35473, 35478, 35483],
     [35491, 35499, 35507, 35512, 35521, 35530, 35539, 35548],
     [35557, 35570, 35583, 35596, 35612, 35627, 35636, 35645],
     [35657, 35668, 35677, 35686, 35698, 35709, 35718, 35727],
     [35739, 35750, 35757, 35764, 35771, 35778, 35779, 35786],
     [35793, 35800, 35807, 35808, 35815, 35822, 35829, 35836],
     [35837, 35844, 35851, 35858, 35865, 35866, 35873, 35880],
     [35887, 35894, 35895, 35902, 35909, 35916, 35923, 35924],
     [35934, 35942, 35947, 35948, 35953, 35954, 35959, 35960],
     [35964, 35967, 35970, 35976, 35979, 35982, 35985, 35991],
     [35994, 35997, 36000, 36006, 36009, 36016, 36023, 36024],
     [36031, 36038, 36045, 36052, 36060, 36068, 36076, 36087],
     [36097, 36105, 36113, 36120, 36127, 36137, 36146, 36154],
     [36162, 36164, 36170, 36179, 36188, 36197, 36209, 36220],
     [36229, 36238, 36246, 36256, 36265, 36273, 36281, 36283],
     [36292, 36301, 36310, 36319, 36331, 36342, 36351, 36360],
     [36368, 36378, 36387, 36395, 36403, 36405, 36414, 36423],
     [36432, 36441, 36453, 36464, 36473, 36482, 36490, 36500],
     [36509, 36517, 36525, 36527, 36536, 36545, 36554, 36563],
     [36575, 36586, 36595, 36604, 36612, 36622, 36631, 36639],
     [36647, 36649, 36658, 36667, 36676, 36685, 36697, 36708],
     [36717, 36726, 36734, 36735, 36745, 36754, 36762, 36770],
     [36772, 36781, 36790, 36799, 36808, 36820, 36831, 36840],
     [36849, 36857, 36863, 36869, 36885, 36891, 36897, 36909],
     [36921, 36933, 36945, 36964, 36977, 36983, 36989, 37003],
     [37009, 37015, 37025, 37034, 37042, 37051, 37057, 37070],
     [37078, 37088, 37094, 37097, 37100, 37102, 37105, 37124],
     [37141, 37147, 37153, 37170, 37186, 37192, 37198, 37213],
     [37229, 37235, 37241, 37257, 37263, 37269, 37282, 37301],
     [37318, 37341, 37363, 37386, 37403, 37426, 37447, 37464],
     [37483, 37502, 37519, 37542, 37564, 37587, 37604, 37627],
     [37646, 37665, 37684, 37703, 37722, 37741, 37760, 37779],
     [37796, 37827, 37849, 37872, 37889, 37912, 37936, 37960],
     [37984, 38006, 38032, 38056, 38078, 38102, 38124, 38148],
     [38172, 38194, 38218, 38242, 38264, 38269, 38274, 38279],
     [38284, 38292, 38300, 38308, 38313, 38322, 38331, 38340],
     [38349, 38358, 38371, 38384, 38397, 38413, 38428, 38437],
     [38446, 38458, 38469, 38478, 38487, 38499, 38510, 38519],
     [38528, 38540, 38551, 38558, 38565, 38572, 38579, 38580],
     [38587, 38594, 38601, 38608, 38609, 38616, 38623, 38630],
     [38637, 38638, 38645, 38652, 38659, 38666, 38667, 38674],
     [38681, 38688, 38695, 38696, 38703, 38710, 38717, 38724],
     [38725, 38735, 38743, 38748, 38749, 38754, 38755, 38760],
     [38761, 38765, 38768, 38771, 38777, 38780, 38783, 38786],
     [38792, 38795, 38798, 38801, 38807, 38810, 38817, 38824],
     [38825, 38832, 38839, 38846, 38853, 38861, 38869, 38877],
     [38888, 38898, 38906, 38914, 38921, 38928, 38938, 38947],
     [38955, 38963, 38965, 38971, 38980, 38989, 38998, 39010],
     [39021, 39030, 39039, 39047, 39057, 39066, 39074, 39082],
     [39084, 39093, 39102, 39111, 39120, 39132, 39143, 39152],
     [39161, 39169, 39179, 39188, 39196, 39204, 39206, 39215],
     [39224, 39233, 39242, 39254, 39265, 39274, 39283, 39291],
     [39301, 39310, 39318, 39326, 39328, 39337, 39346, 39355],
     [39364, 39376, 39387, 39396, 39405, 39413, 39423, 39432],
     [39440, 39448, 39450, 39459, 39468, 39477, 39486, 39498],
     [39509, 39518, 39527, 39535, 39536, 39546, 39555, 39563],
     [39571, 39573, 39582, 39591, 39600, 39609, 39621, 39632],
     [39641, 39650, 39658, 39677, 39695, 39714, 39731, 39751],
     [39769, 39787, 39805, 39820, 39835, 39850, 39866, 39882],
     [39898, 39914, 39930, 39949, 39968, 39987, 40005, 40030],
     [40050, 40056, 40062, 40082, 40088, 40094, 40114, 40134],
     [40140, 40146, 40163, 40183, 40203, 40209, 40215, 40235],
     [40255, 40261, 40267, 40286, 40292, 40298, 40318, 40324],
     [40330, 40349, 40369, 40375, 40381, 40400, 40422, 40442],
     [40466, 40490, 40513, 40536, 40560, 40580, 40602, 40624],
     [40644, 40668, 40692, 40715, 40738, 40760, 40782, 40804],
     [40826, 40848, 40870, 40892, 40914, 40934, 40966, 40990],
     [41013, 41036, 41062, 41088, 41114, 41138, 41166, 41192],
     [41216, 41242, 41266, 41292, 41318, 41342, 41368, 41394],
     [41418, 41438, 41457, 41477, 41496, 41516, 41536, 41556],
     [41576, 41599, 41621, 41640, 41659, 41681, 41702, 41721],
     [41740, 41762, 41783, 41802, 41821, 41843, 41864, 41874],
     [41886, 41898, 41908, 41921, 41934, 41943, 41953, 41966],
     [41981, 41987, 41993, 42005, 42017, 42029, 42041, 42051],
     [42063, 42075, 42087, 42099, 42111, 42123, 42135, 42145],
     [42163, 42186, 42207, 42227, 42247, 42266, 42286, 42306],
     [42325, 42337, 42343, 42351, 42369, 42387, 42388, 42390],
     [42407, 42423, 42425, 42427, 42429, 42431, 42433, 42434],
     [42436, 42440, 42444, 42450, 42471, 42493, 42513, 42528],
     [42534, 42540, 42556, 42562, 42568, 42578, 42587, 42595],
     [42604, 42610, 42624, 42632, 42643, 42649, 42652, 42655],
     [42657, 42661, 42667, 42673, 42679, 42685, 42694, 42703],
     [42712, 42718, 42727, 42736, 42745, 42754, 42763, 42777],
     [42791, 42805, 42822, 42838, 42847, 42856, 42868, 42879],
     [42888, 42897, 42909, 42920, 42929, 42938, 42950, 42961],
     [42968, 42975, 42982, 42989, 42990, 42997, 43004, 43011],
     [43018, 43019, 43026, 43033, 43040, 43047, 43048, 43055],
     [43062, 43069, 43076, 43077, 43084, 43091, 43098, 43105],
     [43106, 43113, 43120, 43127, 43134, 43135, 43145, 43153],
     [43158, 43159, 43164, 43165, 43170, 43171, 43176, 43179],
     [43182, 43188, 43191, 43194, 43197, 43203, 43206, 43209],
     [43212, 43218, 43221, 43228, 43235, 43236, 43243, 43250],
     [43257, 43264, 43272, 43280, 43288, 43299, 43309, 43317],
     [43325, 43332, 43339, 43349, 43358, 43366, 43374, 43376],
     [43382, 43391, 43400, 43409, 43421, 43432, 43441, 43450],
     [43458, 43468, 43477, 43485, 43493, 43495, 43504, 43513],
     [43522, 43531, 43543, 43554, 43563, 43572, 43580, 43590],
     [43599, 43607, 43615, 43617, 43626, 43635, 43644, 43653],
     [43665, 43676, 43685, 43694, 43702, 43712, 43721, 43729],
     [43737, 43739, 43748, 43757, 43766, 43775, 43787, 43798],
     [43807, 43816, 43824, 43834, 43843, 43851, 43859, 43861],
     [43870, 43879, 43888, 43897, 43909, 43920, 43929, 43938],
     [43946, 43947, 43957, 43966, 43974, 43982, 43984, 43993],
     [44002, 44011, 44020, 44032, 44043, 44052, 44061, 44069],
     [44075, 44081, 44101, 44107, 44113, 44130, 44136, 44142],
     [44160, 44181, 44202, 44222, 44237, 44243, 44249, 44265],
     [44271, 44277, 44287, 44296, 44304, 44313, 44319, 44334],
     [44342, 44354, 44360, 44363, 44366, 44368, 44373, 44380],
     [44387, 44394, 44401, 44411, 44421, 44431, 44438, 44447],
     [44456, 44465, 44474, 44483, 44498, 44513, 44528, 44546],
     [44563, 44572, 44581, 44593, 44604, 44613, 44622, 44634],
     [44645, 44654, 44663, 44675, 44686, 44693, 44700, 44707],
     [44714, 44715, 44722, 44729, 44736, 44743, 44744, 44751],
     [44758, 44765, 44772, 44773, 44780, 44787, 44794, 44801],
     [44802, 44809, 44816, 44823, 44830, 44831, 44838, 44845],
     [44852, 44859, 44860, 44870, 44878, 44883, 44884, 44889],
     [44890, 44895, 44896, 44902, 44905, 44908, 44914, 44917],
     [44920, 44923, 44929, 44932, 44935, 44938, 44944, 44947],
     [44954, 44961, 44962, 44969, 44976, 44983, 44990, 44998],
     [45006, 45014, 45025, 45035, 45043, 45051, 45058, 45065],
     [45075, 45084, 45092, 45100, 45102, 45108, 45117, 45126],
     [45135, 45147, 45158, 45167, 45176, 45184, 45194, 45203],
     [45211, 45219, 45221, 45230, 45239, 45248, 45257, 45269],
     [45280, 45289, 45298, 45306, 45316, 45325, 45333, 45341],
     [45343, 45352, 45361, 45370, 45379, 45391, 45402, 45411],
     [45420, 45428, 45438, 45447, 45455, 45463, 45465, 45474],
     [45483, 45492, 45501, 45513, 45524, 45533, 45542, 45550],
     [45560, 45569, 45577, 45585, 45587, 45596, 45605, 45614],
     [45623, 45635, 45646, 45655, 45664, 45672, 45673, 45683],
     [45692, 45700, 45708, 45710, 45719, 45728, 45737, 45746],
     [45758, 45769, 45778, 45787, 45795, 45801, 45807, 45827],
     [45833, 45839, 45857, 45880, 45903, 45926, 45945, 45960],
     [45966, 45972, 45988, 45994, 46000, 46010, 46019, 46027],
     [46036, 46042, 46056, 46064, 46075, 46081, 46084, 46087],
     [46089, 46093, 46099, 46105, 46111, 46117, 46126, 46135],
     [46144, 46150, 46159, 46168, 46177, 46186, 46195, 46209],
     [46223, 46237, 46254, 46270, 46279, 46288, 46300, 46311],
     [46320, 46329, 46341, 46352, 46361, 46370, 46382, 46393],
     [46400, 46407, 46414, 46421, 46422, 46429, 46436, 46443],
     [46450, 46451, 46458, 46465, 46472, 46479, 46480, 46487],
     [46494, 46501, 46508, 46509, 46516, 46523, 46530, 46537]]"

definition smp_key_offsets_5 :: "int list list" where
  "smp_key_offsets_5 =
    [[46538, 46545, 46552, 46559, 46566, 46567, 46577, 46585],
     [46590, 46591, 46596, 46597, 46602, 46603, 46608, 46611],
     [46614, 46620, 46623, 46626, 46629, 46635, 46638, 46641],
     [46644, 46650, 46653, 46660, 46667, 46668, 46675, 46682],
     [46689, 46696, 46704, 46712, 46720, 46731, 46741, 46749],
     [46757, 46764, 46771, 46781, 46790, 46798, 46806, 46808],
     [46814, 46823, 46832, 46841, 46853, 46864, 46873, 46882],
     [46890, 46900, 46909, 46917, 46925, 46927, 46936, 46945],
     [46954, 46963, 46975, 46986, 46995, 47004, 47012, 47022],
     [47031, 47039, 47047, 47049, 47058, 47067, 47076, 47085],
     [47097, 47108, 47117, 47126, 47134, 47144, 47153, 47161],
     [47169, 47171, 47180, 47189, 47198, 47207, 47219, 47230],
     [47239, 47248, 47256, 47266, 47275, 47283, 47291, 47293],
     [47302, 47311, 47320, 47329, 47341, 47352, 47361, 47370],
     [47378, 47379, 47389, 47398, 47406, 47414, 47416, 47425],
     [47434, 47443, 47452, 47464, 47475, 47484, 47493, 47501],
     [47519, 47537, 47555, 47572, 47594, 47612, 47633, 47653],
     [47670, 47687, 47704, 47724, 47744, 47764, 47784, 47804],
     [47827, 47850, 47873, 47895, 47915, 47933, 47953, 47971],
     [47991, 48013, 48035, 48057, 48082, 48106, 48124, 48142],
     [48163, 48183, 48201, 48219, 48240, 48260, 48278, 48296],
     [48317, 48337, 48358, 48381, 48404, 48425, 48438, 48453],
     [48465, 48471, 48481, 48500, 48519, 48536, 48556, 48558],
     [48560, 48562, 48564, 48566, 48567, 48606, 48623, 48640],
     [48661, 48677, 48679, 48681, 48683, 48685, 48687, 48688],
     [48690, 48694, 48698, 48699, 48701, 48704, 48706, 48708],
     [48710, 48713, 48732, 48745, 48751, 48757, 48771, 48777],
     [48783, 48793, 48802, 48810, 48819, 48825, 48838, 48846],
     [48856, 48862, 48865, 48868, 48870, 48873, 48892, 48909],
     [48915, 48921, 48938, 48954, 48960, 48966, 48971, 48976],
     [48977, 48979, 48983, 49004, 49005, 49007, 49028, 49046],
     [49064, 49065, 49067, 49084, 49104, 49124, 49145, 49164],
     [49179, 49185, 49191, 49207, 49213, 49219, 49229, 49238],
     [49246, 49255, 49261, 49276, 49277, 49316, 49324, 49336],
     [49342, 49345, 49348, 49350, 49355, 49374, 49375, 49377],
     [49395, 49413, 49419, 49420, 49422, 49427, 49446, 49447],
     [49449, 49467, 49484, 49500, 49502, 49504, 49506, 49508],
     [49510, 49511, 49513, 49518, 49524, 49531, 49538, 49545],
     [49552, 49553, 49560, 49567, 49574, 49581, 49582, 49589],
     [49596, 49603, 49610, 49611, 49618, 49625, 49632, 49639],
     [49640, 49647, 49654, 49661, 49668, 49669, 49676, 49683],
     [49690, 49697, 49698, 49708, 49716, 49721, 49722, 49727],
     [49728, 49733, 49734, 49737, 49740, 49746, 49749, 49752],
     [49755, 49761, 49764, 49767, 49770, 49776, 49779, 49786],
     [49793, 49794, 49801, 49808, 49815, 49822, 49830, 49838],
     [49846, 49857, 49867, 49875, 49883, 49890, 49897, 49907],
     [49916, 49924, 49932, 49934, 49940, 49949, 49958, 49967],
     [49979, 49990, 49999, 50008, 50016, 50026, 50035, 50043],
     [50051, 50053, 50062, 50071, 50080, 50089, 50101, 50112],
     [50121, 50130, 50138, 50148, 50157, 50165, 50173, 50175],
     [50184, 50193, 50202, 50211, 50223, 50234, 50243, 50252],
     [50260, 50270, 50279, 50287, 50295, 50297, 50306, 50315],
     [50324, 50333, 50345, 50356, 50365, 50374, 50382, 50392],
     [50401, 50409, 50417, 50419, 50428, 50437, 50446, 50455],
     [50467, 50478, 50487, 50496, 50504, 50505, 50515, 50524],
     [50532, 50540, 50542, 50551, 50560, 50569, 50578, 50590],
     [50601, 50610, 50619, 50627, 50628, 50667, 50687, 50707],
     [50726, 50746, 50766, 50784, 50791, 50798, 50805, 50812],
     [50822, 50832, 50842, 50849, 50858, 50867, 50876, 50885],
     [50894, 50909, 50924, 50939, 50957, 50974, 50983, 50992],
     [51004, 51015, 51024, 51033, 51045, 51056, 51065, 51074],
     [51086, 51097, 51104, 51111, 51118, 51125, 51126, 51133],
     [51140, 51147, 51154, 51155, 51162, 51169, 51176, 51183],
     [51184, 51191, 51198, 51205, 51212, 51213, 51220, 51227],
     [51234, 51241, 51242, 51249, 51256, 51263, 51270, 51271],
     [51281, 51289, 51294, 51295, 51300, 51301, 51306, 51307],
     [51313, 51316, 51319, 51325, 51328, 51331, 51334, 51340],
     [51343, 51346, 51349, 51355, 51358, 51365, 51372, 51373],
     [51380, 51387, 51394, 51401, 51409, 51417, 51425, 51436],
     [51446, 51454, 51462, 51469, 51476, 51486, 51495, 51503],
     [51511, 51513, 51519, 51528, 51537, 51546, 51558, 51569],
     [51578, 51587, 51595, 51605, 51614, 51622, 51630, 51632],
     [51641, 51650, 51659, 51668, 51680, 51691, 51700, 51709],
     [51717, 51727, 51736, 51744, 51752, 51754, 51763, 51772],
     [51781, 51790, 51802, 51813, 51822, 51831, 51839, 51849],
     [51858, 51866, 51874, 51876, 51885, 51894, 51903, 51912],
     [51924, 51935, 51944, 51953, 51961, 51971, 51980, 51988],
     [51996, 51998, 52007, 52016, 52025, 52034, 52046, 52057],
     [52066, 52075, 52083, 52084, 52094, 52103, 52111, 52119],
     [52121, 52130, 52139, 52148, 52157, 52169, 52180, 52189],
     [52198, 52206, 52224, 52242, 52260, 52277, 52299, 52317],
     [52337, 52357, 52374, 52391, 52408, 52427, 52446, 52465],
     [52484, 52503, 52525, 52547, 52569, 52590, 52610, 52628],
     [52648, 52666, 52686, 52708, 52730, 52752, 52777, 52801],
     [52819, 52837, 52858, 52878, 52896, 52914, 52935, 52955],
     [52973, 52991, 53012, 53032, 53051, 53066, 53082, 53088],
     [53094, 53110, 53116, 53122, 53135, 53154, 53171, 53194],
     [53216, 53239, 53256, 53279, 53300, 53317, 53336, 53355],
     [53372, 53395, 53417, 53440, 53457, 53480, 53499, 53518],
     [53537, 53556, 53575, 53594, 53613, 53632, 53649, 53680],
     [53702, 53725, 53742, 53765, 53789, 53813, 53837, 53859],
     [53885, 53909, 53931, 53955, 53977, 54001, 54025, 54047],
     [54071, 54095, 54117, 54122, 54127, 54132, 54137, 54145],
     [54153, 54161, 54166, 54175, 54184, 54193, 54202, 54211],
     [54224, 54237, 54250, 54266, 54281, 54290, 54299, 54311],
     [54322, 54331, 54340, 54352, 54363, 54372, 54381, 54393],
     [54404, 54411, 54418, 54425, 54432, 54433, 54440, 54447],
     [54454, 54461, 54462, 54469, 54476, 54483, 54490, 54491],
     [54498, 54505, 54512, 54519, 54520, 54527, 54534, 54541],
     [54548, 54549, 54556, 54563, 54570, 54577, 54578, 54588],
     [54596, 54601, 54602, 54607, 54608, 54613, 54614, 54618],
     [54621, 54624, 54630, 54633, 54636, 54639, 54645, 54648],
     [54651, 54654, 54660, 54663, 54670, 54677, 54678, 54685],
     [54692, 54699, 54706, 54714, 54722, 54730, 54741, 54751],
     [54759, 54767, 54774, 54781, 54791, 54800, 54808, 54816],
     [54818, 54824, 54833, 54842, 54851, 54863, 54874, 54883],
     [54892, 54900, 54910, 54919, 54927, 54935, 54937, 54946],
     [54955, 54964, 54973, 54985, 54996, 55005, 55014, 55022],
     [55032, 55041, 55049, 55057, 55059, 55068, 55077, 55086],
     [55095, 55107, 55118, 55127, 55136, 55144, 55154, 55163],
     [55171, 55179, 55181, 55190, 55199, 55208, 55217, 55229],
     [55240, 55249, 55258, 55266, 55276, 55285, 55293, 55301],
     [55303, 55312, 55321, 55330, 55339, 55351, 55362, 55371],
     [55380, 55388, 55389, 55399, 55408, 55416, 55424, 55426],
     [55435, 55444, 55453, 55462, 55474, 55485, 55494, 55503],
     [55511, 55530, 55548, 55567, 55584, 55604, 55622, 55640],
     [55658, 55673, 55688, 55703, 55719, 55735, 55751, 55767],
     [55783, 55802, 55821, 55840, 55858, 55883, 55903, 55909],
     [55915, 55935, 55941, 55947, 55967, 55987, 55993, 55999],
     [56016, 56036, 56056, 56062, 56068, 56088, 56108, 56114],
     [56120, 56139, 56145, 56151, 56171, 56177, 56183, 56202],
     [56222, 56228, 56234, 56253, 56275, 56295, 56319, 56343],
     [56366, 56389, 56413, 56433, 56455, 56477, 56497, 56521],
     [56545, 56568, 56591, 56613, 56635, 56657, 56679, 56701],
     [56723, 56745, 56767, 56787, 56819, 56843, 56866, 56889],
     [56915, 56941, 56967, 56991, 57019, 57045, 57069, 57095],
     [57119, 57145, 57171, 57195, 57221, 57247, 57271, 57291],
     [57310, 57330, 57349, 57369, 57389, 57409, 57429, 57452],
     [57474, 57493, 57512, 57534, 57555, 57574, 57593, 57615],
     [57636, 57655, 57674, 57696, 57717, 57718, 57724, 57757],
     [57790, 57824, 57859, 57890, 57912, 57934, 57966, 57988],
     [58010, 58036, 58061, 58085, 58110, 58132, 58160, 58184],
     [58209, 58231, 58250, 58269, 58287, 58305, 58337, 58338],
     [58377, 58409, 58440, 58459, 58460, 58499, 58518, 58550],
     [58551, 58590, 58622, 58652, 58672, 58674, 58676, 58678],
     [58680, 58682, 58683, 58722, 58740, 58761, 58784, 58807],
     [58830, 58853, 58870, 58893, 58916, 58939, 58962, 58979],
     [59002, 59025, 59048, 59071, 59088, 59111, 59134, 59157],
     [59180, 59197, 59220, 59243, 59266, 59289, 59306, 59329],
     [59352, 59375, 59398, 59415, 59441, 59465, 59486, 59503],
     [59524, 59541, 59562, 59579, 59598, 59617, 59639, 59658],
     [59677, 59696, 59718, 59737, 59756, 59775, 59797, 59816],
     [59839, 59862, 59879, 59902, 59925, 59948, 59971, 59995],
     [60019, 60043, 60070, 60096, 60120, 60144, 60167, 60190],
     [60216, 60241, 60265, 60289, 60307, 60329, 60354, 60379],
     [60404, 60432, 60459, 60484, 60509, 60533, 60559, 60584],
     [60608, 60632, 60650, 60675, 60700, 60725, 60750, 60778],
     [60805, 60830, 60855, 60879, 60905, 60930, 60954, 60978],
     [60996, 61021, 61046, 61071, 61096, 61124, 61151, 61176],
     [61201, 61225, 61251, 61276, 61300, 61324, 61342, 61367]]"

definition smp_key_offsets_6 :: "int list list" where
  "smp_key_offsets_6 =
    [[61392, 61417, 61442, 61470, 61497, 61522, 61547, 61571],
     [61597, 61622, 61646, 61670, 61688, 61713, 61738, 61763],
     [61788, 61816, 61843, 61868, 61893, 61917, 61934, 61960],
     [61985, 62009, 62033, 62051, 62076, 62101, 62126, 62151],
     [62179, 62206, 62231, 62256, 62280, 62313, 62346, 62378],
     [62411, 62444, 62475, 62495, 62515, 62535, 62555, 62578],
     [62601, 62624, 62644, 62669, 62694, 62719, 62744, 62769],
     [62797, 62825, 62853, 62884, 62914, 62939, 62964, 62992],
     [63019, 63044, 63069, 63097, 63124, 63149, 63174, 63202],
     [63229, 63252, 63275, 63298, 63321, 63338, 63361, 63384],
     [63407, 63430, 63447, 63470, 63493, 63516, 63539, 63556],
     [63579, 63602, 63625, 63648, 63665, 63688, 63711, 63734],
     [63757, 63774, 63797, 63820, 63843, 63866, 63883, 63909],
     [63933, 63954, 63971, 63992, 64009, 64030, 64047, 64066],
     [64085, 64104, 64126, 64145, 64164, 64183, 64205, 64224],
     [64243, 64262, 64284, 64303, 64326, 64349, 64366, 64389],
     [64412, 64435, 64458, 64482, 64506, 64530, 64557, 64583],
     [64607, 64631, 64654, 64677, 64703, 64728, 64752, 64776],
     [64794, 64816, 64841, 64866, 64891, 64919, 64946, 64971],
     [64996, 65020, 65046, 65071, 65095, 65119, 65137, 65162],
     [65187, 65212, 65237, 65265, 65292, 65317, 65342, 65366],
     [65392, 65417, 65441, 65465, 65483, 65508, 65533, 65558],
     [65583, 65611, 65638, 65663, 65688, 65712, 65738, 65763],
     [65787, 65811, 65829, 65854, 65879, 65904, 65929, 65957],
     [65984, 66009, 66034, 66058, 66084, 66109, 66133, 66157],
     [66175, 66200, 66225, 66250, 66275, 66303, 66330, 66355],
     [66380, 66404, 66421, 66447, 66472, 66496, 66520, 66538],
     [66563, 66588, 66613, 66638, 66666, 66693, 66718, 66743],
     [66767, 66801, 66835, 66869, 66902, 66937, 66971, 67004],
     [67040, 67073, 67106, 67139, 67171, 67203, 67235, 67267],
     [67299, 67334, 67369, 67404, 67438, 67474, 67508, 67544],
     [67578, 67614, 67649, 67684, 67719, 67757, 67794, 67828],
     [67862, 67899, 67935, 67969, 68003, 68040, 68076, 68110],
     [68144, 68181, 68217, 68249, 68280, 68312, 68334, 68356],
     [68388, 68410, 68432, 68461, 68496, 68529, 68568, 68606],
     [68645, 68678, 68717, 68754, 68787, 68822, 68857, 68890],
     [68929, 68967, 69006, 69039, 69078, 69113, 69148, 69183],
     [69218, 69253, 69288, 69323, 69358, 69391, 69438, 69476],
     [69515, 69548, 69587, 69627, 69667, 69707, 69745, 69787],
     [69827, 69865, 69905, 69943, 69983, 70023, 70061, 70101],
     [70141, 70179, 70200, 70221, 70242, 70263, 70287, 70311],
     [70335, 70356, 70381, 70406, 70431, 70456, 70481, 70510],
     [70539, 70568, 70600, 70631, 70656, 70681, 70709, 70736],
     [70761, 70786, 70814, 70841, 70866, 70891, 70919, 70946],
     [70969, 70992, 71015, 71038, 71055, 71078, 71101, 71124],
     [71147, 71164, 71187, 71210, 71233, 71256, 71273, 71296],
     [71319, 71342, 71365, 71382, 71405, 71428, 71451, 71474],
     [71491, 71514, 71537, 71560, 71583, 71600, 71626, 71650],
     [71671, 71688, 71709, 71726, 71747, 71764, 71784, 71803],
     [71822, 71844, 71863, 71882, 71901, 71923, 71942, 71961],
     [71980, 72002, 72021, 72044, 72067, 72084, 72107, 72130],
     [72153, 72176, 72200, 72224, 72248, 72275, 72301, 72325],
     [72349, 72372, 72395, 72421, 72446, 72470, 72494, 72512],
     [72534, 72559, 72584, 72609, 72637, 72664, 72689, 72714],
     [72738, 72764, 72789, 72813, 72837, 72855, 72880, 72905],
     [72930, 72955, 72983, 73010, 73035, 73060, 73084, 73110],
     [73135, 73159, 73183, 73201, 73226, 73251, 73276, 73301],
     [73329, 73356, 73381, 73406, 73430, 73456, 73481, 73505],
     [73529, 73547, 73572, 73597, 73622, 73647, 73675, 73702],
     [73727, 73752, 73776, 73802, 73827, 73851, 73875, 73893],
     [73918, 73943, 73968, 73993, 74021, 74048, 74073, 74098],
     [74122, 74139, 74165, 74190, 74214, 74238, 74256, 74281],
     [74306, 74331, 74356, 74384, 74411, 74436, 74461, 74485],
     [74520, 74554, 74589, 74622, 74658, 74692, 74726, 74760],
     [74791, 74822, 74853, 74885, 74917, 74949, 74981, 75013],
     [75048, 75083, 75118, 75152, 75193, 75229, 75251, 75273],
     [75309, 75331, 75353, 75389, 75425, 75447, 75469, 75502],
     [75538, 75574, 75596, 75618, 75654, 75690, 75712, 75734],
     [75769, 75791, 75813, 75849, 75871, 75893, 75928, 75964],
     [75986, 76008, 76043, 76081, 76117, 76157, 76197, 76236],
     [76275, 76315, 76351, 76389, 76427, 76463, 76503, 76543],
     [76582, 76621, 76659, 76697, 76735, 76773, 76811, 76849],
     [76887, 76925, 76961, 77009, 77049, 77088, 77127, 77169],
     [77211, 77253, 77293, 77337, 77379, 77419, 77461, 77501],
     [77543, 77585, 77625, 77667, 77709, 77749, 77785, 77820],
     [77856, 77891, 77927, 77963, 77999, 78035, 78074, 78112],
     [78147, 78182, 78220, 78257, 78292, 78327, 78365, 78402],
     [78437, 78472, 78510, 78547, 78564, 78583, 78602, 78619],
     [78638, 78657, 78676, 78695, 78714, 78733, 78752, 78771],
     [78788, 78791, 78796, 78797, 78799, 78803, 78808, 78850],
     [78851, 78853, 78894, 78909, 78925, 78941, 78956, 78972],
     [78988, 79003, 79019, 79035, 79051, 79067, 79083, 79098],
     [79114, 79131, 79147, 79162, 79178, 79194, 79210, 79225],
     [79241, 79257, 79273, 79289, 79305, 79321, 79336, 79352],
     [79368, 79384, 79400, 79416, 79431, 79447, 79463, 79479],
     [79495, 79511, 79527, 79542, 79559, 79575, 79591, 79607],
     [79622, 79640, 79656, 79672, 79688, 79704, 79719, 79735],
     [79750, 79766, 79781, 79797, 79814, 79830, 79846, 79861],
     [79877, 79893, 79909, 79925, 79941, 79956, 79973, 79989],
     [80005, 80021, 80036, 80052, 80068, 80084, 80100, 80116],
     [80132, 80148, 80163, 80179, 80195, 80211, 80227, 80243],
     [80258, 80273, 80278, 80283, 80288, 80293, 80298, 80303],
     [80308, 80313, 80316, 80317, 80356, 80372, 80373, 80374],
     [80376, 80391, 80404, 80410, 80416, 80430, 80436, 80442],
     [80452, 80461, 80469, 80478, 80484, 80496, 80504, 80513],
     [80519, 80522, 80525, 80527, 80529, 80541, 80547, 80553],
     [80557, 80561, 80565, 80569, 80576, 80583, 80590, 80594],
     [80603, 80612, 80621, 80630, 80639, 80651, 80663, 80675],
     [80690, 80704, 80713, 80722, 80734, 80745, 80754, 80763],
     [80775, 80786, 80795, 80804, 80816, 80827, 80834, 80841],
     [80848, 80855, 80856, 80863, 80870, 80877, 80884, 80885],
     [80892, 80899, 80906, 80913, 80914, 80921, 80928, 80935],
     [80942, 80943, 80950, 80957, 80964, 80971, 80972, 80979],
     [80986, 80993, 81000, 81001, 81011, 81019, 81024, 81025],
     [81030, 81031, 81036, 81037, 81040, 81043, 81046, 81052],
     [81055, 81058, 81061, 81067, 81070, 81073, 81076, 81082],
     [81085, 81092, 81099, 81100, 81107, 81114, 81121, 81128],
     [81136, 81144, 81152, 81163, 81173, 81181, 81189, 81196],
     [81203, 81213, 81222, 81230, 81238, 81240, 81246, 81255],
     [81264, 81273, 81285, 81296, 81305, 81314, 81322, 81332],
     [81341, 81349, 81357, 81359, 81368, 81377, 81386, 81395],
     [81407, 81418, 81427, 81436, 81444, 81454, 81463, 81471],
     [81479, 81481, 81490, 81499, 81508, 81517, 81529, 81540],
     [81549, 81558, 81566, 81576, 81585, 81593, 81601, 81603],
     [81612, 81621, 81630, 81639, 81651, 81662, 81671, 81680],
     [81688, 81698, 81707, 81715, 81723, 81725, 81734, 81743],
     [81752, 81761, 81773, 81784, 81793, 81802, 81810, 81811],
     [81821, 81830, 81838, 81846, 81848, 81857, 81866, 81875],
     [81884, 81896, 81907, 81916, 81925, 81933, 81939, 81945],
     [81962, 81968, 81974, 81987, 82003, 82019, 82034, 82047],
     [82053, 82059, 82073, 82079, 82085, 82095, 82104, 82112],
     [82121, 82127, 82140, 82148, 82158, 82164, 82167, 82170],
     [82172, 82175, 82180, 82185, 82190, 82195, 82203, 82211],
     [82219, 82224, 82233, 82242, 82251, 82260, 82269, 82282],
     [82295, 82308, 82324, 82339, 82348, 82357, 82369, 82380],
     [82389, 82398, 82410, 82421, 82430, 82439, 82451, 82462],
     [82469, 82476, 82483, 82490, 82491, 82498, 82505, 82512],
     [82519, 82520, 82527, 82534, 82541, 82548, 82549, 82556],
     [82563, 82570, 82577, 82578, 82585, 82592, 82599, 82606],
     [82607, 82614, 82621, 82628, 82635, 82636, 82646, 82654],
     [82659, 82660, 82665, 82666, 82671, 82672, 82676, 82679],
     [82682, 82688, 82691, 82694, 82697, 82703, 82706, 82709],
     [82712, 82718, 82721, 82728, 82735, 82736, 82743, 82750],
     [82757, 82764, 82772, 82780, 82788, 82799, 82809, 82817],
     [82825, 82832, 82839, 82849, 82858, 82866, 82874, 82876],
     [82882, 82891, 82900, 82909, 82921, 82932, 82941, 82950],
     [82958, 82968, 82977, 82985, 82993, 82995, 83004, 83013],
     [83022, 83031, 83043, 83054, 83063, 83072, 83080, 83090],
     [83099, 83107, 83115, 83117, 83126, 83135, 83144, 83153],
     [83165, 83176, 83185, 83194, 83202, 83212, 83221, 83229],
     [83237, 83239, 83248, 83257, 83266, 83275, 83287, 83298],
     [83307, 83316, 83324, 83334, 83343, 83351, 83359, 83361],
     [83370, 83379, 83388, 83397, 83409, 83420, 83429, 83438],
     [83446, 83447, 83457, 83466, 83474, 83482, 83484, 83493],
     [83502, 83511, 83520, 83532, 83543, 83552, 83561, 83569],
     [83575, 83581, 83598, 83604, 83610, 83623, 83635, 83647],
     [83659, 83678, 83691, 83697, 83703, 83717, 83723, 83729],
     [83739, 83748, 83756, 83765, 83771, 83784, 83792, 83802],
     [83808, 83811, 83814, 83816, 83819, 83838, 83855, 83861],
     [83867, 83884, 83900, 83906, 83912, 83927, 83943, 83949]]"

definition smp_key_offsets_7 :: "int list list" where
  "smp_key_offsets_7 =
    [[83955, 83971, 83977, 83983, 83996, 84015, 84032, 84055],
     [84077, 84100, 84117, 84140, 84161, 84178, 84197, 84216],
     [84233, 84256, 84278, 84301, 84318, 84341, 84360, 84379],
     [84398, 84417, 84436, 84455, 84474, 84493, 84510, 84541],
     [84563, 84586, 84603, 84626, 84650, 84674, 84698, 84720],
     [84746, 84770, 84792, 84816, 84838, 84862, 84886, 84908],
     [84932, 84956, 84978, 84983, 84988, 84993, 84998, 85006],
     [85014, 85022, 85027, 85036, 85045, 85054, 85063, 85072],
     [85085, 85098, 85111, 85127, 85142, 85151, 85160, 85172],
     [85183, 85192, 85201, 85213, 85224, 85233, 85242, 85254],
     [85265, 85272, 85279, 85286, 85293, 85294, 85301, 85308],
     [85315, 85322, 85323, 85330, 85337, 85344, 85351, 85352],
     [85359, 85366, 85373, 85380, 85381, 85388, 85395, 85402],
     [85409, 85410, 85417, 85424, 85431, 85438, 85439, 85449],
     [85457, 85462, 85463, 85468, 85469, 85474, 85475, 85479],
     [85482, 85485, 85491, 85494, 85497, 85500, 85506, 85509],
     [85512, 85515, 85521, 85524, 85531, 85538, 85539, 85546],
     [85553, 85560, 85567, 85575, 85583, 85591, 85602, 85612],
     [85620, 85628, 85635, 85642, 85652, 85661, 85669, 85677],
     [85679, 85685, 85694, 85703, 85712, 85724, 85735, 85744],
     [85753, 85761, 85771, 85780, 85788, 85796, 85798, 85807],
     [85816, 85825, 85834, 85846, 85857, 85866, 85875, 85883],
     [85893, 85902, 85910, 85918, 85920, 85929, 85938, 85947],
     [85956, 85968, 85979, 85988, 85997, 86005, 86015, 86024],
     [86032, 86040, 86042, 86051, 86060, 86069, 86078, 86090],
     [86101, 86110, 86119, 86127, 86137, 86146, 86154, 86162],
     [86164, 86173, 86182, 86191, 86200, 86212, 86223, 86232],
     [86241, 86249, 86250, 86260, 86269, 86277, 86285, 86287],
     [86296, 86305, 86314, 86323, 86335, 86346, 86355, 86364],
     [86372, 86391, 86409, 86428, 86445, 86465, 86483, 86501],
     [86519, 86534, 86549, 86564, 86581, 86598, 86615, 86632],
     [86649, 86669, 86689, 86709, 86728, 86753, 86773, 86779],
     [86785, 86805, 86811, 86817, 86837, 86857, 86863, 86869],
     [86886, 86906, 86926, 86932, 86938, 86958, 86978, 86984],
     [86990, 87009, 87015, 87021, 87041, 87047, 87053, 87072],
     [87092, 87098, 87104, 87123, 87145, 87165, 87189, 87213],
     [87236, 87259, 87283, 87303, 87325, 87347, 87367, 87391],
     [87415, 87438, 87461, 87483, 87505, 87527, 87549, 87571],
     [87593, 87615, 87637, 87657, 87689, 87713, 87736, 87759],
     [87785, 87811, 87837, 87861, 87889, 87915, 87939, 87965],
     [87989, 88015, 88041, 88065, 88091, 88117, 88141, 88161],
     [88180, 88200, 88219, 88239, 88259, 88279, 88299, 88322],
     [88344, 88363, 88382, 88404, 88425, 88444, 88463, 88485],
     [88506, 88525, 88544, 88566, 88587, 88597, 88609, 88621],
     [88631, 88644, 88657, 88666, 88676, 88689, 88704, 88710],
     [88716, 88728, 88740, 88752, 88764, 88774, 88786, 88798],
     [88810, 88822, 88834, 88846, 88858, 88868, 88886, 88909],
     [88930, 88950, 88970, 88989, 89009, 89029, 89048, 89060],
     [89066, 89074, 89090, 89106, 89121, 89137, 89153, 89168],
     [89184, 89200, 89216, 89232, 89248, 89263, 89280, 89297],
     [89314, 89328, 89330, 89333, 89335, 89338, 89340, 89342],
     [89344, 89345, 89346, 89347, 89348, 89349, 89365, 89382],
     [89398, 89413, 89429, 89445, 89461, 89476, 89492, 89508],
     [89524, 89540, 89556, 89572, 89587, 89603, 89619, 89635],
     [89651, 89667, 89682, 89698, 89714, 89730, 89746, 89762],
     [89778, 89793, 89810, 89826, 89842, 89858, 89873, 89891],
     [89907, 89923, 89939, 89955, 89970, 89986, 90001, 90017],
     [90032, 90048, 90065, 90081, 90097, 90112, 90128, 90144],
     [90160, 90176, 90192, 90207, 90226, 90242, 90258, 90274],
     [90289, 90305, 90321, 90337, 90353, 90369, 90385, 90401],
     [90416, 90432, 90448, 90464, 90480, 90496, 90511, 90528]]"

definition smp_single_lengths_1 :: "int list list" where
  "smp_single_lengths_1 =
    [[0, 19, 1, 19, 1, 5, 4, 2],
     [11, 4, 2, 2, 2, 1, 0, 1],
     [0, 1, 1, 27, 1, 7, 3, 4],
     [2, 0, 0, 0, 0, 0, 1, 29],
     [13, 9, 9, 9, 9, 9, 7, 3],
     [5, 1, 2, 4, 4, 2, 3, 9],
     [9, 11, 9, 9, 7, 3, 12, 1],
     [29, 12, 1, 29, 5, 4, 4, 4],
     [5, 13, 11, 2, 2, 8, 2, 2],
     [6, 5, 4, 5, 2, 9, 4, 6],
     [4, 3, 3, 2, 5, 13, 13, 2],
     [2, 13, 12, 2, 2, 6, 6, 1],
     [29, 6, 12, 1, 29, 12, 9, 9],
     [1, 29, 9, 9, 3, 13, 1, 2],
     [13, 1, 2, 3, 4, 2, 10, 8],
     [7, 0, 0, 6, 0, 0, 4, 3],
     [2, 3, 0, 6, 2, 3, 2, 1],
     [1, 0, 2, 4, 1, 29, 4, 1],
     [29, 3, 9, 1, 2, 8, 9, 5],
     [1, 2, 4, 9, 1, 2, 8, 8],
     [4, 1, 2, 4, 0, 0, 0, 0],
     [0, 1, 2, 4, 0, 1, 1, 1],
     [1, 1, 1, 1, 1, 1, 1, 1],
     [1, 1, 1, 1, 1, 1, 1, 1],
     [1, 1, 1, 1, 1, 1, 1, 1],
     [1, 1, 1, 4, 2, 3, 1, 3],
     [1, 3, 1, 1, 1, 2, 1, 1],
     [1, 2, 1, 1, 1, 2, 1, 1],
     [1, 1, 1, 1, 1, 1, 2, 2],
     [2, 3, 2, 2, 2, 1, 1, 4],
     [3, 2, 2, 2, 0, 3, 3, 3],
     [4, 3, 3, 3, 2, 4, 3, 2],
     [2, 2, 3, 3, 3, 3, 4, 3],
     [3, 3, 2, 4, 3, 2, 2, 2],
     [3, 3, 3, 3, 4, 3, 3, 3],
     [2, 4, 3, 2, 2, 2, 3, 3],
     [3, 3, 4, 3, 3, 3, 2, 4],
     [3, 2, 2, 2, 3, 3, 3, 3],
     [4, 3, 3, 3, 2, 1, 4, 3],
     [2, 2, 2, 3, 3, 3, 3, 4],
     [3, 3, 3, 2, 1, 29, 7, 3],
     [7, 1, 29, 7, 8, 4, 1, 2],
     [3, 7, 1, 2, 6, 1, 29, 7],
     [3, 3, 1, 2, 2, 1, 1, 1],
     [1, 1, 1, 1, 1, 1, 9, 9],
     [9, 9, 9, 9, 9, 9, 9, 9],
     [9, 7, 3, 3, 1, 2, 2, 1],
     [1, 1, 1, 9, 9, 9, 9, 9],
     [9, 9, 9, 9, 9, 9, 9, 7],
     [3, 7, 1, 2, 6, 8, 4, 1],
     [2, 3, 7, 1, 2, 6, 1, 29],
     [11, 9, 9, 9, 9, 9, 7, 3],
     [7, 1, 2, 6, 8, 4, 1, 2],
     [3, 7, 1, 2, 6, 1, 29, 9],
     [9, 9, 9, 9, 9, 9, 9, 9],
     [3, 13, 1, 2, 13, 1, 2, 3],
     [4, 2, 10, 8, 7, 0, 0, 6],
     [0, 0, 4, 3, 2, 3, 0, 6],
     [2, 3, 2, 1, 1, 0, 2, 4],
     [1, 29, 4, 1, 29, 3, 9, 1],
     [2, 8, 9, 5, 1, 2, 4, 9],
     [1, 2, 8, 8, 4, 1, 2, 4],
     [0, 0, 0, 0, 0, 1, 2, 4],
     [0, 1, 1, 1, 1, 1, 1, 1],
     [1, 1, 1, 1, 1, 1, 1, 1],
     [1, 1, 1, 1, 1, 1, 1, 1],
     [1, 1, 1, 1, 1, 1, 1, 4],
     [2, 3, 1, 3, 1, 3, 1, 1],
     [1, 2, 1, 1, 1, 2, 1, 1],
     [1, 2, 1, 1, 1, 1, 1, 1],
     [1, 1, 2, 2, 2, 3, 2, 2],
     [2, 1, 1, 4, 3, 2, 2, 2],
     [0, 3, 3, 3, 4, 3, 3, 3],
     [2, 4, 3, 2, 2, 2, 3, 3],
     [3, 3, 4, 3, 3, 3, 2, 4],
     [3, 2, 2, 2, 3, 3, 3, 3],
     [4, 3, 3, 3, 2, 4, 3, 2],
     [2, 2, 3, 3, 3, 3, 4, 3],
     [3, 3, 2, 4, 3, 2, 2, 2],
     [3, 3, 3, 3, 4, 3, 3, 3],
     [2, 1, 4, 3, 2, 2, 2, 3],
     [3, 3, 3, 4, 3, 3, 3, 2],
     [1, 29, 9, 3, 7, 1, 2, 6],
     [8, 4, 1, 2, 3, 7, 1, 2],
     [6, 8, 4, 1, 2, 3, 7, 1],
     [2, 6, 7, 7, 1, 2, 6, 3],
     [2, 3, 0, 9, 6, 1, 2, 5],
     [7, 1, 2, 6, 5, 1, 2, 4],
     [1, 1, 0, 5, 5, 1, 2, 4],
     [13, 1, 2, 12, 10, 6, 1, 2],
     [5, 9, 1, 2, 8, 9, 1, 29],
     [4, 0, 0, 0, 0, 0, 1, 2],
     [5, 0, 1, 1, 1, 1, 1, 1],
     [1, 1, 1, 1, 1, 1, 1, 1],
     [1, 1, 1, 1, 1, 1, 1, 1],
     [1, 1, 1, 1, 1, 1, 1, 1],
     [4, 2, 3, 1, 3, 1, 3, 1],
     [1, 1, 2, 1, 1, 1, 2, 1],
     [1, 1, 2, 1, 1, 1, 1, 1],
     [1, 1, 1, 2, 2, 2, 3, 2],
     [2, 2, 1, 1, 4, 3, 2, 2],
     [2, 0, 3, 3, 3, 4, 3, 3],
     [3, 2, 4, 3, 2, 2, 2, 3],
     [3, 3, 3, 4, 3, 3, 3, 2],
     [4, 3, 2, 2, 2, 3, 3, 3],
     [3, 4, 3, 3, 3, 2, 4, 3],
     [2, 2, 2, 3, 3, 3, 3, 4],
     [3, 3, 3, 2, 4, 3, 2, 2],
     [2, 3, 3, 3, 3, 4, 3, 3],
     [3, 2, 1, 4, 3, 2, 2, 2],
     [3, 3, 3, 3, 4, 3, 3, 3],
     [2, 1, 29, 12, 12, 12, 12, 10],
     [6, 1, 2, 5, 7, 1, 2, 6],
     [9, 1, 29, 12, 12, 12, 12, 12],
     [8, 4, 1, 2, 3, 8, 1, 2],
     [7, 9, 10, 10, 10, 10, 10, 10],
     [9, 14, 12, 12, 12, 12, 12, 12],
     [8, 4, 1, 2, 3, 7, 1, 2],
     [6, 2, 3, 1, 3, 1, 3, 5],
     [5, 5, 6, 5, 1, 1, 2, 1],
     [1, 1, 2, 1, 1, 1, 1, 1],
     [1, 1, 1, 1, 1, 1, 1, 1],
     [1, 1, 1, 1, 1, 1, 1, 1],
     [1, 1, 1, 1, 1, 1, 1, 1],
     [4, 2, 1, 1, 1, 1, 5, 5],
     [5, 2, 2, 2, 3, 2, 2, 2],
     [5, 1, 8, 7, 6, 6, 6, 0],
     [7, 7, 7, 8, 7, 7, 7, 6],
     [8, 7, 6, 6, 6, 3, 7, 7],
     [7, 8, 7, 7, 7, 6, 8, 7],
     [6, 6, 6, 3, 7, 7, 7, 8],
     [7, 7, 7, 6, 8, 7, 6, 6],
     [6, 3, 7, 7, 7, 8, 7, 7],
     [7, 6, 8, 7, 6, 6, 6, 3],
     [7, 7, 7, 8, 7, 7, 7, 6],
     [2, 2, 2, 3, 2, 2, 2, 1],
     [8, 7, 6, 6, 6, 3, 7, 7],
     [7, 8, 7, 7, 7, 6, 1, 12],
     [12, 12, 10, 6, 1, 2, 5, 5],
     [1, 2, 4, 1, 1, 0, 5, 5],
     [5, 5, 5, 6, 6, 6, 5, 1],
     [29, 5, 5, 5, 5, 6, 6, 6],
     [5, 1, 29, 2, 6, 3, 3, 3],
     [3, 3, 9, 9, 9, 10, 9, 3],
     [3, 4, 3, 3, 3, 4, 3, 3],
     [3, 4, 3, 1, 1, 1, 1, 1],
     [1, 1, 1, 1, 1, 1, 1, 1],
     [1, 1, 1, 1, 1, 1, 1, 1],
     [1, 1, 1, 1, 1, 1, 1, 1],
     [1, 4, 2, 3, 1, 3, 1, 3]]"

definition smp_single_lengths_2 :: "int list list" where
  "smp_single_lengths_2 =
    [[1, 6, 1, 1, 2, 1, 1, 1],
     [2, 1, 1, 1, 2, 1, 1, 1],
     [1, 1, 1, 1, 1, 2, 2, 2],
     [3, 2, 2, 2, 1, 1, 4, 3],
     [2, 2, 2, 0, 3, 3, 3, 4],
     [3, 3, 3, 2, 4, 3, 2, 2],
     [2, 3, 3, 3, 3, 4, 3, 3],
     [3, 2, 4, 3, 2, 2, 2, 3],
     [3, 3, 3, 4, 3, 3, 3, 2],
     [4, 3, 2, 2, 2, 3, 3, 3],
     [3, 4, 3, 3, 3, 2, 4, 3],
     [2, 2, 2, 3, 3, 3, 3, 4],
     [3, 3, 3, 2, 1, 4, 3, 2],
     [2, 2, 3, 3, 3, 3, 4, 3],
     [3, 3, 2, 9, 7, 11, 11, 9],
     [5, 1, 2, 4, 9, 1, 2, 8],
     [8, 1, 29, 5, 0, 0, 2, 2],
     [2, 2, 3, 3, 3, 2, 3, 3],
     [3, 3, 3, 6, 6, 6, 7, 6],
     [3, 3, 4, 3, 3, 3, 4, 3],
     [3, 3, 4, 3, 1, 1, 1, 1],
     [1, 1, 1, 1, 1, 1, 1, 1],
     [1, 1, 1, 1, 1, 1, 1, 1],
     [1, 1, 1, 1, 1, 1, 1, 1],
     [1, 1, 4, 2, 3, 1, 3, 1],
     [3, 1, 3, 1, 1, 2, 1, 1],
     [1, 2, 1, 1, 1, 2, 1, 1],
     [1, 1, 1, 1, 1, 1, 2, 2],
     [2, 3, 2, 2, 2, 1, 1, 4],
     [3, 2, 2, 2, 0, 3, 3, 3],
     [4, 3, 3, 3, 2, 4, 3, 2],
     [2, 2, 3, 3, 3, 3, 4, 3],
     [3, 3, 2, 4, 3, 2, 2, 2],
     [3, 3, 3, 3, 4, 3, 3, 3],
     [2, 4, 3, 2, 2, 2, 3, 3],
     [3, 3, 4, 3, 3, 3, 2, 4],
     [3, 2, 2, 2, 3, 3, 3, 3],
     [4, 3, 3, 3, 2, 1, 4, 3],
     [2, 2, 2, 3, 3, 3, 3, 4],
     [3, 3, 3, 2, 0, 0, 8, 0],
     [0, 6, 9, 9, 8, 7, 0, 0],
     [6, 0, 0, 4, 3, 2, 3, 0],
     [7, 2, 4, 2, 1, 1, 0, 3],
     [3, 3, 3, 3, 4, 4, 4, 3],
     [3, 3, 3, 3, 3, 7, 7, 7],
     [8, 7, 3, 3, 4, 3, 3, 3],
     [4, 3, 3, 3, 4, 3, 1, 1],
     [1, 1, 1, 1, 1, 1, 1, 1],
     [1, 1, 1, 1, 1, 1, 1, 1],
     [1, 1, 1, 1, 1, 1, 1, 1],
     [1, 1, 1, 1, 4, 2, 3, 1],
     [3, 1, 3, 1, 4, 1, 1, 2],
     [1, 1, 1, 2, 1, 1, 1, 2],
     [1, 1, 1, 1, 1, 1, 1, 1],
     [2, 2, 2, 3, 2, 2, 2, 1],
     [1, 4, 3, 2, 2, 2, 0, 3],
     [3, 3, 4, 3, 3, 3, 2, 4],
     [3, 2, 2, 2, 3, 3, 3, 3],
     [4, 3, 3, 3, 2, 4, 3, 2],
     [2, 2, 3, 3, 3, 3, 4, 3],
     [3, 3, 2, 4, 3, 2, 2, 2],
     [3, 3, 3, 3, 4, 3, 3, 3],
     [2, 4, 3, 2, 2, 2, 3, 3],
     [3, 3, 4, 3, 3, 3, 2, 1],
     [4, 3, 2, 2, 2, 3, 3, 3],
     [3, 4, 3, 3, 3, 2, 0, 0],
     [8, 0, 0, 6, 4, 4, 4, 11],
     [7, 0, 0, 6, 0, 0, 4, 3],
     [2, 3, 0, 7, 2, 4, 2, 1],
     [1, 0, 3, 11, 9, 0, 0, 9],
     [8, 0, 0, 7, 8, 0, 0, 8],
     [0, 0, 5, 11, 9, 13, 12, 7],
     [7, 7, 13, 9, 11, 11, 9, 13],
     [12, 7, 7, 7, 11, 11, 11, 11],
     [11, 11, 11, 11, 9, 21, 12, 7],
     [7, 7, 14, 14, 14, 12, 16, 14],
     [12, 14, 12, 14, 14, 12, 14, 14],
     [12, 3, 3, 3, 3, 4, 4, 4],
     [3, 3, 3, 3, 3, 3, 7, 7],
     [7, 8, 7, 3, 3, 4, 3, 3],
     [3, 4, 3, 3, 3, 4, 3, 1],
     [1, 1, 1, 1, 1, 1, 1, 1],
     [1, 1, 1, 1, 1, 1, 1, 1],
     [1, 1, 1, 1, 1, 1, 1, 1],
     [1, 1, 1, 1, 1, 4, 2, 3],
     [1, 3, 1, 3, 1, 4, 1, 1],
     [2, 1, 1, 1, 2, 1, 1, 1],
     [2, 1, 1, 1, 1, 1, 1, 1],
     [1, 2, 2, 2, 3, 2, 2, 2],
     [1, 1, 4, 3, 2, 2, 2, 0],
     [3, 3, 3, 4, 3, 3, 3, 2],
     [4, 3, 2, 2, 2, 3, 3, 3],
     [3, 4, 3, 3, 3, 2, 4, 3],
     [2, 2, 2, 3, 3, 3, 3, 4],
     [3, 3, 3, 2, 4, 3, 2, 2],
     [2, 3, 3, 3, 3, 4, 3, 3],
     [3, 2, 4, 3, 2, 2, 2, 3],
     [3, 3, 3, 4, 3, 3, 3, 2],
     [1, 4, 3, 2, 2, 2, 3, 3],
     [3, 3, 4, 3, 3, 3, 2, 11],
     [10, 11, 9, 12, 10, 10, 8, 7],
     [7, 7, 8, 8, 8, 8, 8, 9],
     [9, 9, 8, 19, 14, 0, 0, 14],
     [0, 0, 14, 14, 0, 0, 11, 14],
     [14, 0, 0, 12, 12, 0, 0, 13],
     [0, 0, 14, 0, 0, 13, 14, 0],
     [0, 13, 16, 14, 16, 16, 7, 7],
     [18, 14, 16, 16, 14, 16, 16, 7],
     [7, 16, 16, 16, 16, 16, 16, 16],
     [16, 14, 24, 16, 7, 7, 18, 18],
     [18, 16, 20, 18, 16, 18, 16, 18],
     [18, 16, 18, 18, 16, 12, 11, 12],
     [11, 12, 12, 12, 12, 13, 12, 11],
     [11, 12, 11, 11, 11, 12, 11, 11],
     [11, 12, 11, 2, 4, 4, 2, 3],
     [3, 3, 4, 5, 7, 0, 0, 6],
     [6, 6, 6, 4, 6, 6, 6, 6],
     [6, 6, 6, 4, 8, 9, 9, 12],
     [10, 9, 12, 10, 9, 2, 0, 2],
     [8, 8, 1, 2, 7, 4, 0, 0],
     [0, 0, 0, 1, 2, 4, 4, 0],
     [11, 14, 12, 7, 0, 0, 6, 0],
     [0, 4, 3, 2, 3, 0, 8, 2],
     [5, 2, 1, 1, 0, 4, 4, 4],
     [4, 4, 5, 5, 5, 4, 3, 3],
     [3, 3, 3, 8, 8, 8, 9, 8],
     [3, 3, 4, 3, 3, 3, 4, 3],
     [3, 3, 4, 3, 1, 1, 1, 1],
     [1, 1, 1, 1, 1, 1, 1, 1],
     [1, 1, 1, 1, 1, 1, 1, 1],
     [1, 1, 1, 1, 1, 1, 1, 1],
     [1, 1, 4, 2, 3, 1, 3, 1],
     [3, 1, 5, 1, 1, 2, 1, 1],
     [1, 2, 1, 1, 1, 2, 1, 1],
     [1, 1, 1, 1, 1, 1, 2, 2],
     [2, 3, 2, 2, 2, 1, 1, 4],
     [3, 2, 2, 2, 0, 3, 3, 3],
     [4, 3, 3, 3, 2, 4, 3, 2],
     [2, 2, 3, 3, 3, 3, 4, 3],
     [3, 3, 2, 4, 3, 2, 2, 2],
     [3, 3, 3, 3, 4, 3, 3, 3],
     [2, 4, 3, 2, 2, 2, 3, 3],
     [3, 3, 4, 3, 3, 3, 2, 4],
     [3, 2, 2, 2, 3, 3, 3, 3],
     [4, 3, 3, 3, 2, 1, 4, 3],
     [2, 2, 2, 3, 3, 3, 3, 4],
     [3, 3, 3, 2, 0, 0, 12, 0],
     [0, 9, 0, 0, 10, 13, 13, 12],
     [7, 0, 0, 6, 0, 0, 4, 3],
     [2, 3, 0, 9, 2, 6, 2, 1]]"

definition smp_single_lengths_3 :: "int list list" where
  "smp_single_lengths_3 =
    [[1, 0, 5, 5, 5, 5, 5, 6],
     [6, 6, 5, 3, 3, 3, 3, 3],
     [9, 9, 9, 10, 9, 3, 3, 4],
     [3, 3, 3, 4, 3, 3, 3, 4],
     [3, 1, 1, 1, 1, 1, 1, 1],
     [1, 1, 1, 1, 1, 1, 1, 1],
     [1, 1, 1, 1, 1, 1, 1, 1],
     [1, 1, 1, 1, 1, 1, 1, 4],
     [2, 3, 1, 3, 1, 3, 1, 6],
     [1, 1, 2, 1, 1, 1, 2, 1],
     [1, 1, 2, 1, 1, 1, 1, 1],
     [1, 1, 1, 2, 2, 2, 3, 2],
     [2, 2, 1, 1, 4, 3, 2, 2],
     [2, 0, 3, 3, 3, 4, 3, 3],
     [3, 2, 4, 3, 2, 2, 2, 3],
     [3, 3, 3, 4, 3, 3, 3, 2],
     [4, 3, 2, 2, 2, 3, 3, 3],
     [3, 4, 3, 3, 3, 2, 4, 3],
     [2, 2, 2, 3, 3, 3, 3, 4],
     [3, 3, 3, 2, 4, 3, 2, 2],
     [2, 3, 3, 3, 3, 4, 3, 3],
     [3, 2, 1, 4, 3, 2, 2, 2],
     [3, 3, 3, 3, 4, 3, 3, 3],
     [2, 0, 0, 12, 0, 0, 10, 13],
     [13, 13, 9, 7, 0, 0, 6, 0],
     [0, 4, 3, 2, 3, 0, 8, 2],
     [5, 2, 1, 1, 0, 4, 4, 4],
     [4, 4, 5, 5, 5, 4, 3, 3],
     [3, 3, 3, 8, 8, 8, 9, 8],
     [3, 3, 4, 3, 3, 3, 4, 3],
     [3, 3, 4, 3, 1, 1, 1, 1],
     [1, 1, 1, 1, 1, 1, 1, 1],
     [1, 1, 1, 1, 1, 1, 1, 1],
     [1, 1, 1, 1, 1, 1, 1, 1],
     [1, 1, 4, 2, 3, 1, 3, 1],
     [3, 1, 5, 1, 1, 2, 1, 1],
     [1, 2, 1, 1, 1, 2, 1, 1],
     [1, 1, 1, 1, 1, 1, 2, 2],
     [2, 3, 2, 2, 2, 1, 1, 4],
     [3, 2, 2, 2, 0, 3, 3, 3],
     [4, 3, 3, 3, 2, 4, 3, 2],
     [2, 2, 3, 3, 3, 3, 4, 3],
     [3, 3, 2, 4, 3, 2, 2, 2],
     [3, 3, 3, 3, 4, 3, 3, 3],
     [2, 4, 3, 2, 2, 2, 3, 3],
     [3, 3, 4, 3, 3, 3, 2, 4],
     [3, 2, 2, 2, 3, 3, 3, 3],
     [4, 3, 3, 3, 2, 1, 4, 3],
     [2, 2, 2, 3, 3, 3, 3, 4],
     [3, 3, 3, 2, 10, 8, 10, 7],
     [14, 8, 11, 8, 7, 7, 7, 10],
     [10, 10, 10, 10, 11, 11, 11, 10],
     [10, 10, 10, 10, 10, 14, 14, 14],
     [15, 14, 10, 10, 11, 10, 10, 10],
     [11, 10, 10, 10, 11, 10, 11, 13],
     [13, 11, 3, 5, 2, 0, 4, 7],
     [9, 9, 9, 7, 3, 9, 1, 2],
     [9, 1, 2, 3, 2, 2, 2, 3],
     [11, 7, 0, 0, 6, 0, 0, 4],
     [3, 2, 3, 0, 7, 2, 4, 2],
     [1, 1, 0, 3, 11, 9, 0, 0],
     [9, 8, 0, 0, 5, 5, 1, 2],
     [4, 9, 1, 2, 9, 8, 8, 1],
     [2, 7, 4, 0, 0, 0, 0, 0],
     [1, 2, 4, 4, 0, 7, 1, 2],
     [6, 10, 6, 1, 2, 5, 9, 1],
     [2, 8, 9, 1, 29, 4, 0, 0],
     [0, 0, 0, 1, 2, 0, 1, 1],
     [1, 1, 1, 1, 1, 1, 1, 1],
     [1, 1, 1, 1, 1, 1, 1, 1],
     [1, 1, 1, 1, 1, 1, 1, 1],
     [1, 1, 1, 1, 4, 2, 3, 1],
     [3, 1, 3, 1, 1, 1, 2, 1],
     [1, 1, 2, 1, 1, 1, 2, 1],
     [1, 1, 1, 1, 1, 1, 1, 2],
     [2, 2, 3, 2, 2, 2, 1, 1],
     [4, 3, 2, 2, 2, 0, 3, 3],
     [3, 4, 3, 3, 3, 2, 4, 3],
     [2, 2, 2, 3, 3, 3, 3, 4],
     [3, 3, 3, 2, 4, 3, 2, 2],
     [2, 3, 3, 3, 3, 4, 3, 3],
     [3, 2, 4, 3, 2, 2, 2, 3],
     [3, 3, 3, 4, 3, 3, 3, 2],
     [4, 3, 2, 2, 2, 3, 3, 3],
     [3, 4, 3, 3, 3, 2, 1, 4],
     [3, 2, 2, 2, 3, 3, 3, 3],
     [4, 3, 3, 3, 2, 1, 29, 7],
     [8, 0, 0, 8, 0, 0, 5, 11],
     [9, 13, 12, 7, 7, 7, 13, 9],
     [11, 11, 9, 13, 12, 7, 7, 7],
     [11, 11, 11, 11, 11, 11, 11, 11],
     [9, 21, 12, 7, 7, 7, 14, 14],
     [14, 12, 16, 14, 12, 14, 12, 14],
     [14, 12, 14, 14, 12, 3, 3, 3],
     [3, 4, 4, 4, 3, 3, 3, 3],
     [3, 3, 7, 7, 7, 8, 7, 3],
     [3, 4, 3, 3, 3, 4, 3, 3],
     [3, 4, 3, 1, 1, 1, 1, 1],
     [1, 1, 1, 1, 1, 1, 1, 1],
     [1, 1, 1, 1, 1, 1, 1, 1],
     [1, 1, 1, 1, 1, 1, 1, 1],
     [1, 4, 2, 3, 1, 3, 1, 3],
     [1, 4, 1, 1, 2, 1, 1, 1],
     [2, 1, 1, 1, 2, 1, 1, 1],
     [1, 1, 1, 1, 1, 2, 2, 2],
     [3, 2, 2, 2, 1, 1, 4, 3],
     [2, 2, 2, 0, 3, 3, 3, 4],
     [3, 3, 3, 2, 4, 3, 2, 2],
     [2, 3, 3, 3, 3, 4, 3, 3],
     [3, 2, 4, 3, 2, 2, 2, 3],
     [3, 3, 3, 4, 3, 3, 3, 2],
     [4, 3, 2, 2, 2, 3, 3, 3],
     [3, 4, 3, 3, 3, 2, 4, 3],
     [2, 2, 2, 3, 3, 3, 3, 4],
     [3, 3, 3, 2, 1, 4, 3, 2],
     [2, 2, 3, 3, 3, 3, 4, 3],
     [3, 3, 2, 11, 10, 11, 9, 12],
     [10, 10, 8, 7, 7, 7, 8, 8],
     [8, 8, 8, 9, 9, 9, 8, 19],
     [14, 0, 0, 14, 0, 0, 14, 14],
     [0, 0, 11, 14, 14, 0, 0, 12],
     [12, 0, 0, 13, 0, 0, 14, 0],
     [0, 13, 14, 0, 0, 13, 16, 14],
     [16, 16, 7, 7, 18, 14, 16, 16],
     [14, 16, 16, 7, 7, 16, 16, 16],
     [16, 16, 16, 16, 16, 14, 24, 16],
     [7, 7, 18, 18, 18, 16, 20, 18],
     [16, 18, 16, 18, 18, 16, 18, 18],
     [16, 12, 11, 12, 11, 12, 12, 12],
     [12, 13, 12, 11, 11, 12, 11, 11],
     [11, 12, 11, 11, 11, 12, 11, 1],
     [11, 11, 9, 5, 1, 2, 4, 9],
     [1, 2, 8, 8, 1, 29, 5, 0],
     [0, 2, 2, 2, 2, 3, 3, 3],
     [2, 3, 3, 3, 3, 3, 6, 6],
     [6, 7, 6, 3, 3, 4, 3, 3],
     [3, 4, 3, 3, 3, 4, 3, 1],
     [1, 1, 1, 1, 1, 1, 1, 1],
     [1, 1, 1, 1, 1, 1, 1, 1],
     [1, 1, 1, 1, 1, 1, 1, 1],
     [1, 1, 1, 1, 1, 4, 2, 3],
     [1, 3, 1, 3, 1, 3, 1, 1],
     [2, 1, 1, 1, 2, 1, 1, 1],
     [2, 1, 1, 1, 1, 1, 1, 1],
     [1, 2, 2, 2, 3, 2, 2, 2],
     [1, 1, 4, 3, 2, 2, 2, 0],
     [3, 3, 3, 4, 3, 3, 3, 2],
     [4, 3, 2, 2, 2, 3, 3, 3],
     [3, 4, 3, 3, 3, 2, 4, 3],
     [2, 2, 2, 3, 3, 3, 3, 4]]"

definition smp_single_lengths_4 :: "int list list" where
  "smp_single_lengths_4 =
    [[3, 3, 3, 2, 4, 3, 2, 2],
     [2, 3, 3, 3, 3, 4, 3, 3],
     [3, 2, 4, 3, 2, 2, 2, 3],
     [3, 3, 3, 4, 3, 3, 3, 2],
     [1, 4, 3, 2, 2, 2, 3, 3],
     [3, 3, 4, 3, 3, 3, 2, 0],
     [0, 8, 0, 0, 6, 9, 9, 8],
     [7, 0, 0, 6, 0, 0, 4, 3],
     [2, 3, 0, 7, 2, 4, 2, 1],
     [1, 0, 3, 3, 3, 3, 3, 4],
     [4, 4, 3, 3, 3, 3, 3, 3],
     [7, 7, 7, 8, 7, 3, 3, 4],
     [3, 3, 3, 4, 3, 3, 3, 4],
     [3, 1, 1, 1, 1, 1, 1, 1],
     [1, 1, 1, 1, 1, 1, 1, 1],
     [1, 1, 1, 1, 1, 1, 1, 1],
     [1, 1, 1, 1, 1, 1, 1, 4],
     [2, 3, 1, 3, 1, 3, 1, 4],
     [1, 1, 2, 1, 1, 1, 2, 1],
     [1, 1, 2, 1, 1, 1, 1, 1],
     [1, 1, 1, 2, 2, 2, 3, 2],
     [2, 2, 1, 1, 4, 3, 2, 2],
     [2, 0, 3, 3, 3, 4, 3, 3],
     [3, 2, 4, 3, 2, 2, 2, 3],
     [3, 3, 3, 4, 3, 3, 3, 2],
     [4, 3, 2, 2, 2, 3, 3, 3],
     [3, 4, 3, 3, 3, 2, 4, 3],
     [2, 2, 2, 3, 3, 3, 3, 4],
     [3, 3, 3, 2, 4, 3, 2, 2],
     [2, 3, 3, 3, 3, 4, 3, 3],
     [3, 2, 1, 4, 3, 2, 2, 2],
     [3, 3, 3, 3, 4, 3, 3, 3],
     [2, 0, 0, 8, 0, 0, 6, 4],
     [4, 4, 11, 7, 0, 0, 6, 0],
     [0, 4, 3, 2, 3, 0, 7, 2],
     [4, 2, 1, 1, 0, 3, 11, 9],
     [0, 0, 9, 8, 0, 0, 7, 8],
     [0, 0, 8, 0, 0, 5, 11, 9],
     [13, 12, 7, 7, 7, 13, 9, 11],
     [11, 9, 13, 12, 7, 7, 7, 11],
     [11, 11, 11, 11, 11, 11, 11, 9],
     [21, 12, 7, 7, 7, 14, 14, 14],
     [12, 16, 14, 12, 14, 12, 14, 14],
     [12, 14, 14, 12, 3, 3, 3, 3],
     [4, 4, 4, 3, 3, 3, 3, 3],
     [3, 7, 7, 7, 8, 7, 3, 3],
     [4, 3, 3, 3, 4, 3, 3, 3],
     [4, 3, 1, 1, 1, 1, 1, 1],
     [1, 1, 1, 1, 1, 1, 1, 1],
     [1, 1, 1, 1, 1, 1, 1, 1],
     [1, 1, 1, 1, 1, 1, 1, 1],
     [4, 2, 3, 1, 3, 1, 3, 1],
     [4, 1, 1, 2, 1, 1, 1, 2],
     [1, 1, 1, 2, 1, 1, 1, 1],
     [1, 1, 1, 1, 2, 2, 2, 3],
     [2, 2, 2, 1, 1, 4, 3, 2],
     [2, 2, 0, 3, 3, 3, 4, 3],
     [3, 3, 2, 4, 3, 2, 2, 2],
     [3, 3, 3, 3, 4, 3, 3, 3],
     [2, 4, 3, 2, 2, 2, 3, 3],
     [3, 3, 4, 3, 3, 3, 2, 4],
     [3, 2, 2, 2, 3, 3, 3, 3],
     [4, 3, 3, 3, 2, 4, 3, 2],
     [2, 2, 3, 3, 3, 3, 4, 3],
     [3, 3, 2, 1, 4, 3, 2, 2],
     [2, 3, 3, 3, 3, 4, 3, 3],
     [3, 2, 11, 10, 11, 9, 12, 10],
     [10, 8, 7, 7, 7, 8, 8, 8],
     [8, 8, 9, 9, 9, 8, 19, 14],
     [0, 0, 14, 0, 0, 14, 14, 0],
     [0, 11, 14, 14, 0, 0, 12, 12],
     [0, 0, 13, 0, 0, 14, 0, 0],
     [13, 14, 0, 0, 13, 16, 14, 16],
     [16, 7, 7, 18, 14, 16, 16, 14],
     [16, 16, 7, 7, 16, 16, 16, 16],
     [16, 16, 16, 16, 14, 24, 16, 7],
     [7, 18, 18, 18, 16, 20, 18, 16],
     [18, 16, 18, 18, 16, 18, 18, 16],
     [12, 11, 12, 11, 12, 12, 12, 12],
     [13, 12, 11, 11, 12, 11, 11, 11],
     [12, 11, 11, 11, 12, 11, 2, 4],
     [4, 2, 3, 3, 3, 4, 5, 7],
     [0, 0, 6, 6, 6, 6, 4, 6],
     [6, 6, 6, 6, 6, 6, 4, 8],
     [9, 9, 12, 10, 9, 12, 10, 9],
     [2, 0, 2, 8, 8, 1, 2, 7],
     [4, 0, 0, 0, 0, 0, 1, 2],
     [4, 4, 0, 11, 14, 12, 7, 0],
     [0, 6, 0, 0, 4, 3, 2, 3],
     [0, 8, 2, 5, 2, 1, 1, 0],
     [4, 4, 4, 4, 4, 5, 5, 5],
     [4, 3, 3, 3, 3, 3, 8, 8],
     [8, 9, 8, 3, 3, 4, 3, 3],
     [3, 4, 3, 3, 3, 4, 3, 1],
     [1, 1, 1, 1, 1, 1, 1, 1],
     [1, 1, 1, 1, 1, 1, 1, 1],
     [1, 1, 1, 1, 1, 1, 1, 1],
     [1, 1, 1, 1, 1, 4, 2, 3],
     [1, 3, 1, 3, 1, 5, 1, 1],
     [2, 1, 1, 1, 2, 1, 1, 1],
     [2, 1, 1, 1, 1, 1, 1, 1],
     [1, 2, 2, 2, 3, 2, 2, 2],
     [1, 1, 4, 3, 2, 2, 2, 0],
     [3, 3, 3, 4, 3, 3, 3, 2],
     [4, 3, 2, 2, 2, 3, 3, 3],
     [3, 4, 3, 3, 3, 2, 4, 3],
     [2, 2, 2, 3, 3, 3, 3, 4],
     [3, 3, 3, 2, 4, 3, 2, 2],
     [2, 3, 3, 3, 3, 4, 3, 3],
     [3, 2, 4, 3, 2, 2, 2, 3],
     [3, 3, 3, 4, 3, 3, 3, 2],
     [1, 4, 3, 2, 2, 2, 3, 3],
     [3, 3, 4, 3, 3, 3, 2, 0],
     [0, 12, 0, 0, 9, 0, 0, 10],
     [13, 13, 12, 7, 0, 0, 6, 0],
     [0, 4, 3, 2, 3, 0, 9, 2],
     [6, 2, 1, 1, 0, 5, 5, 5],
     [5, 5, 6, 6, 6, 5, 3, 3],
     [3, 3, 3, 9, 9, 9, 10, 9],
     [3, 3, 4, 3, 3, 3, 4, 3],
     [3, 3, 4, 3, 1, 1, 1, 1],
     [1, 1, 1, 1, 1, 1, 1, 1],
     [1, 1, 1, 1, 1, 1, 1, 1],
     [1, 1, 1, 1, 1, 1, 1, 1],
     [1, 1, 4, 2, 3, 1, 3, 1],
     [3, 1, 6, 1, 1, 2, 1, 1],
     [1, 2, 1, 1, 1, 2, 1, 1],
     [1, 1, 1, 1, 1, 1, 2, 2],
     [2, 3, 2, 2, 2, 1, 1, 4],
     [3, 2, 2, 2, 0, 3, 3, 3],
     [4, 3, 3, 3, 2, 4, 3, 2],
     [2, 2, 3, 3, 3, 3, 4, 3],
     [3, 3, 2, 4, 3, 2, 2, 2],
     [3, 3, 3, 3, 4, 3, 3, 3],
     [2, 4, 3, 2, 2, 2, 3, 3],
     [3, 3, 4, 3, 3, 3, 2, 4],
     [3, 2, 2, 2, 3, 3, 3, 3],
     [4, 3, 3, 3, 2, 1, 4, 3],
     [2, 2, 2, 3, 3, 3, 3, 4],
     [3, 3, 3, 2, 0, 0, 12, 0],
     [0, 10, 13, 13, 13, 9, 7, 0],
     [0, 6, 0, 0, 4, 3, 2, 3],
     [0, 8, 2, 5, 2, 1, 1, 0],
     [4, 4, 4, 4, 4, 5, 5, 5],
     [4, 3, 3, 3, 3, 3, 8, 8],
     [8, 9, 8, 3, 3, 4, 3, 3],
     [3, 4, 3, 3, 3, 4, 3, 1],
     [1, 1, 1, 1, 1, 1, 1, 1],
     [1, 1, 1, 1, 1, 1, 1, 1],
     [1, 1, 1, 1, 1, 1, 1, 1]]"

definition smp_single_lengths_5 :: "int list list" where
  "smp_single_lengths_5 =
    [[1, 1, 1, 1, 1, 4, 2, 3],
     [1, 3, 1, 3, 1, 5, 1, 1],
     [2, 1, 1, 1, 2, 1, 1, 1],
     [2, 1, 1, 1, 1, 1, 1, 1],
     [1, 2, 2, 2, 3, 2, 2, 2],
     [1, 1, 4, 3, 2, 2, 2, 0],
     [3, 3, 3, 4, 3, 3, 3, 2],
     [4, 3, 2, 2, 2, 3, 3, 3],
     [3, 4, 3, 3, 3, 2, 4, 3],
     [2, 2, 2, 3, 3, 3, 3, 4],
     [3, 3, 3, 2, 4, 3, 2, 2],
     [2, 3, 3, 3, 3, 4, 3, 3],
     [3, 2, 4, 3, 2, 2, 2, 3],
     [3, 3, 3, 4, 3, 3, 3, 2],
     [1, 4, 3, 2, 2, 2, 3, 3],
     [3, 3, 4, 3, 3, 3, 2, 10],
     [8, 10, 7, 14, 8, 11, 8, 7],
     [7, 7, 10, 10, 10, 10, 10, 11],
     [11, 11, 10, 10, 10, 10, 10, 10],
     [14, 14, 14, 15, 14, 10, 10, 11],
     [10, 10, 10, 11, 10, 10, 10, 11],
     [10, 11, 13, 13, 11, 3, 5, 2],
     [0, 4, 9, 9, 7, 4, 0, 0],
     [0, 0, 0, 1, 29, 5, 5, 3],
     [4, 0, 0, 0, 0, 0, 1, 2],
     [4, 4, 1, 2, 3, 2, 2, 2],
     [3, 11, 7, 0, 0, 6, 0, 0],
     [4, 3, 2, 3, 0, 7, 2, 4],
     [2, 1, 1, 0, 3, 11, 9, 0],
     [0, 9, 8, 0, 0, 5, 5, 1],
     [2, 4, 11, 1, 2, 11, 8, 8],
     [1, 2, 7, 10, 10, 11, 9, 7],
     [0, 0, 6, 0, 0, 4, 3, 2],
     [3, 0, 9, 1, 29, 2, 6, 2],
     [1, 1, 0, 5, 9, 1, 2, 8],
     [10, 6, 1, 2, 5, 9, 1, 2],
     [8, 9, 4, 0, 0, 0, 0, 0],
     [1, 2, 5, 0, 1, 1, 1, 1],
     [1, 1, 1, 1, 1, 1, 1, 1],
     [1, 1, 1, 1, 1, 1, 1, 1],
     [1, 1, 1, 1, 1, 1, 1, 1],
     [1, 1, 4, 2, 3, 1, 3, 1],
     [3, 1, 1, 1, 2, 1, 1, 1],
     [2, 1, 1, 1, 2, 1, 1, 1],
     [1, 1, 1, 1, 1, 2, 2, 2],
     [3, 2, 2, 2, 1, 1, 4, 3],
     [2, 2, 2, 0, 3, 3, 3, 4],
     [3, 3, 3, 2, 4, 3, 2, 2],
     [2, 3, 3, 3, 3, 4, 3, 3],
     [3, 2, 4, 3, 2, 2, 2, 3],
     [3, 3, 3, 4, 3, 3, 3, 2],
     [4, 3, 2, 2, 2, 3, 3, 3],
     [3, 4, 3, 3, 3, 2, 4, 3],
     [2, 2, 2, 3, 3, 3, 3, 4],
     [3, 3, 3, 2, 1, 4, 3, 2],
     [2, 2, 3, 3, 3, 3, 4, 3],
     [3, 3, 2, 1, 29, 12, 12, 11],
     [12, 12, 10, 5, 5, 5, 5, 6],
     [6, 6, 5, 3, 3, 3, 3, 3],
     [9, 9, 9, 10, 9, 3, 3, 4],
     [3, 3, 3, 4, 3, 3, 3, 4],
     [3, 1, 1, 1, 1, 1, 1, 1],
     [1, 1, 1, 1, 1, 1, 1, 1],
     [1, 1, 1, 1, 1, 1, 1, 1],
     [1, 1, 1, 1, 1, 1, 1, 4],
     [2, 3, 1, 3, 1, 3, 1, 6],
     [1, 1, 2, 1, 1, 1, 2, 1],
     [1, 1, 2, 1, 1, 1, 1, 1],
     [1, 1, 1, 2, 2, 2, 3, 2],
     [2, 2, 1, 1, 4, 3, 2, 2],
     [2, 0, 3, 3, 3, 4, 3, 3],
     [3, 2, 4, 3, 2, 2, 2, 3],
     [3, 3, 3, 4, 3, 3, 3, 2],
     [4, 3, 2, 2, 2, 3, 3, 3],
     [3, 4, 3, 3, 3, 2, 4, 3],
     [2, 2, 2, 3, 3, 3, 3, 4],
     [3, 3, 3, 2, 4, 3, 2, 2],
     [2, 3, 3, 3, 3, 4, 3, 3],
     [3, 2, 1, 4, 3, 2, 2, 2],
     [3, 3, 3, 3, 4, 3, 3, 3],
     [2, 10, 8, 10, 7, 14, 8, 12],
     [8, 7, 7, 7, 11, 11, 11, 11],
     [11, 12, 12, 12, 11, 10, 10, 10],
     [10, 10, 14, 14, 14, 15, 14, 10],
     [10, 11, 10, 10, 10, 11, 10, 10],
     [10, 11, 10, 9, 7, 8, 0, 0],
     [8, 0, 0, 5, 11, 9, 13, 12],
     [7, 7, 7, 13, 9, 11, 11, 9],
     [13, 12, 7, 7, 7, 11, 11, 11],
     [11, 11, 11, 11, 11, 9, 21, 12],
     [7, 7, 7, 14, 14, 14, 12, 16],
     [14, 12, 14, 12, 14, 14, 12, 14],
     [14, 12, 3, 3, 3, 3, 4, 4],
     [4, 3, 3, 3, 3, 3, 3, 7],
     [7, 7, 8, 7, 3, 3, 4, 3],
     [3, 3, 4, 3, 3, 3, 4, 3],
     [1, 1, 1, 1, 1, 1, 1, 1],
     [1, 1, 1, 1, 1, 1, 1, 1],
     [1, 1, 1, 1, 1, 1, 1, 1],
     [1, 1, 1, 1, 1, 1, 4, 2],
     [3, 1, 3, 1, 3, 1, 4, 1],
     [1, 2, 1, 1, 1, 2, 1, 1],
     [1, 2, 1, 1, 1, 1, 1, 1],
     [1, 1, 2, 2, 2, 3, 2, 2],
     [2, 1, 1, 4, 3, 2, 2, 2],
     [0, 3, 3, 3, 4, 3, 3, 3],
     [2, 4, 3, 2, 2, 2, 3, 3],
     [3, 3, 4, 3, 3, 3, 2, 4],
     [3, 2, 2, 2, 3, 3, 3, 3],
     [4, 3, 3, 3, 2, 4, 3, 2],
     [2, 2, 3, 3, 3, 3, 4, 3],
     [3, 3, 2, 4, 3, 2, 2, 2],
     [3, 3, 3, 3, 4, 3, 3, 3],
     [2, 1, 4, 3, 2, 2, 2, 3],
     [3, 3, 3, 4, 3, 3, 3, 2],
     [11, 10, 11, 9, 12, 10, 10, 8],
     [7, 7, 7, 8, 8, 8, 8, 8],
     [9, 9, 9, 8, 19, 14, 0, 0],
     [14, 0, 0, 14, 14, 0, 0, 11],
     [14, 14, 0, 0, 12, 12, 0, 0],
     [13, 0, 0, 14, 0, 0, 13, 14],
     [0, 0, 13, 16, 14, 16, 16, 7],
     [7, 18, 14, 16, 16, 14, 16, 16],
     [7, 7, 16, 16, 16, 16, 16, 16],
     [16, 16, 14, 24, 16, 7, 7, 18],
     [18, 18, 16, 20, 18, 16, 18, 16],
     [18, 18, 16, 18, 18, 16, 12, 11],
     [12, 11, 12, 12, 12, 12, 13, 12],
     [11, 11, 12, 11, 11, 11, 12, 11],
     [11, 11, 12, 11, 1, 0, 11, 11],
     [12, 11, 9, 2, 2, 8, 2, 2],
     [6, 5, 4, 5, 2, 10, 4, 7],
     [4, 3, 3, 2, 6, 10, 1, 29],
     [10, 11, 7, 1, 29, 7, 10, 1],
     [29, 10, 10, 4, 0, 0, 0, 0],
     [0, 1, 29, 6, 3, 3, 3, 3],
     [3, 3, 3, 3, 3, 3, 3, 3],
     [3, 3, 3, 3, 3, 3, 3, 3],
     [3, 3, 3, 3, 3, 3, 3, 3],
     [3, 3, 3, 6, 4, 5, 3, 5],
     [3, 5, 3, 3, 3, 4, 3, 3],
     [3, 4, 3, 3, 3, 4, 3, 3],
     [3, 3, 3, 3, 3, 3, 4, 4],
     [4, 5, 4, 4, 4, 3, 3, 6],
     [5, 4, 4, 4, 2, 5, 5, 5],
     [6, 5, 5, 5, 4, 6, 5, 4],
     [4, 4, 5, 5, 5, 5, 6, 5],
     [5, 5, 4, 6, 5, 4, 4, 4],
     [5, 5, 5, 5, 6, 5, 5, 5],
     [4, 6, 5, 4, 4, 4, 5, 5]]"

definition smp_single_lengths_6 :: "int list list" where
  "smp_single_lengths_6 =
    [[5, 5, 6, 5, 5, 5, 4, 6],
     [5, 4, 4, 4, 5, 5, 5, 5],
     [6, 5, 5, 5, 4, 3, 6, 5],
     [4, 4, 4, 5, 5, 5, 5, 6],
     [5, 5, 5, 4, 13, 13, 12, 13],
     [13, 11, 6, 6, 6, 6, 7, 7],
     [7, 6, 5, 5, 5, 5, 5, 10],
     [10, 10, 11, 10, 5, 5, 6, 5],
     [5, 5, 6, 5, 5, 5, 6, 5],
     [3, 3, 3, 3, 3, 3, 3, 3],
     [3, 3, 3, 3, 3, 3, 3, 3],
     [3, 3, 3, 3, 3, 3, 3, 3],
     [3, 3, 3, 3, 3, 3, 6, 4],
     [5, 3, 5, 3, 5, 3, 7, 3],
     [3, 4, 3, 3, 3, 4, 3, 3],
     [3, 4, 3, 3, 3, 3, 3, 3],
     [3, 3, 4, 4, 4, 5, 4, 4],
     [4, 3, 3, 6, 5, 4, 4, 4],
     [2, 5, 5, 5, 6, 5, 5, 5],
     [4, 6, 5, 4, 4, 4, 5, 5],
     [5, 5, 6, 5, 5, 5, 4, 6],
     [5, 4, 4, 4, 5, 5, 5, 5],
     [6, 5, 5, 5, 4, 6, 5, 4],
     [4, 4, 5, 5, 5, 5, 6, 5],
     [5, 5, 4, 6, 5, 4, 4, 4],
     [5, 5, 5, 5, 6, 5, 5, 5],
     [4, 3, 6, 5, 4, 4, 4, 5],
     [5, 5, 5, 6, 5, 5, 5, 4],
     [12, 10, 12, 9, 15, 10, 13, 10],
     [9, 9, 9, 12, 12, 12, 12, 12],
     [13, 13, 13, 12, 12, 12, 12, 12],
     [12, 15, 15, 15, 16, 15, 12, 12],
     [13, 12, 12, 12, 13, 12, 12, 12],
     [13, 12, 10, 9, 10, 2, 2, 10],
     [2, 2, 7, 13, 13, 15, 14, 9],
     [9, 9, 15, 13, 13, 13, 13, 15],
     [14, 9, 9, 9, 13, 13, 13, 13],
     [13, 13, 13, 13, 13, 23, 14, 9],
     [9, 9, 16, 16, 16, 14, 18, 16],
     [14, 16, 14, 16, 16, 14, 16, 16],
     [14, 5, 5, 5, 5, 6, 6, 6],
     [5, 5, 5, 5, 5, 5, 9, 9],
     [9, 10, 9, 5, 5, 6, 5, 5],
     [5, 6, 5, 5, 5, 6, 5, 3],
     [3, 3, 3, 3, 3, 3, 3, 3],
     [3, 3, 3, 3, 3, 3, 3, 3],
     [3, 3, 3, 3, 3, 3, 3, 3],
     [3, 3, 3, 3, 3, 6, 4, 5],
     [3, 5, 3, 5, 3, 6, 3, 3],
     [4, 3, 3, 3, 4, 3, 3, 3],
     [4, 3, 3, 3, 3, 3, 3, 3],
     [3, 4, 4, 4, 5, 4, 4, 4],
     [3, 3, 6, 5, 4, 4, 4, 2],
     [5, 5, 5, 6, 5, 5, 5, 4],
     [6, 5, 4, 4, 4, 5, 5, 5],
     [5, 6, 5, 5, 5, 4, 6, 5],
     [4, 4, 4, 5, 5, 5, 5, 6],
     [5, 5, 5, 4, 6, 5, 4, 4],
     [4, 5, 5, 5, 5, 6, 5, 5],
     [5, 4, 6, 5, 4, 4, 4, 5],
     [5, 5, 5, 6, 5, 5, 5, 4],
     [3, 6, 5, 4, 4, 4, 5, 5],
     [5, 5, 6, 5, 5, 5, 4, 13],
     [12, 13, 11, 14, 12, 12, 10, 9],
     [9, 9, 10, 10, 10, 10, 10, 11],
     [11, 11, 10, 21, 18, 2, 2, 16],
     [2, 2, 16, 16, 2, 2, 13, 18],
     [18, 2, 2, 16, 16, 2, 2, 15],
     [2, 2, 16, 2, 2, 15, 16, 2],
     [2, 15, 18, 18, 18, 18, 9, 9],
     [20, 18, 18, 18, 18, 18, 18, 9],
     [9, 18, 18, 18, 18, 18, 18, 18],
     [18, 18, 26, 18, 9, 9, 20, 20],
     [20, 18, 22, 20, 18, 20, 18, 20],
     [20, 18, 20, 20, 18, 14, 13, 14],
     [13, 14, 14, 14, 14, 15, 14, 13],
     [13, 14, 13, 13, 13, 14, 13, 13],
     [13, 14, 13, 3, 9, 9, 9, 9],
     [9, 9, 9, 9, 9, 9, 9, 7],
     [3, 3, 1, 2, 2, 3, 22, 1],
     [2, 21, 5, 6, 6, 5, 6, 6],
     [5, 6, 6, 6, 6, 6, 5, 6],
     [7, 6, 5, 6, 6, 6, 5, 6],
     [6, 6, 6, 6, 6, 5, 6, 6],
     [6, 6, 6, 5, 6, 6, 6, 6],
     [6, 6, 5, 7, 6, 6, 6, 5],
     [8, 6, 6, 6, 6, 5, 6, 5],
     [6, 5, 6, 7, 6, 6, 5, 6],
     [6, 6, 6, 6, 5, 7, 6, 6],
     [6, 5, 6, 6, 6, 6, 6, 6],
     [6, 5, 6, 6, 6, 6, 6, 5],
     [5, 3, 3, 3, 3, 3, 3, 3],
     [3, 3, 1, 29, 4, 1, 1, 2],
     [9, 7, 0, 0, 6, 0, 0, 4],
     [3, 2, 3, 0, 6, 2, 3, 2],
     [1, 1, 0, 2, 6, 0, 0, 2],
     [2, 2, 2, 3, 3, 3, 2, 3],
     [3, 3, 3, 3, 6, 6, 6, 7],
     [6, 3, 3, 4, 3, 3, 3, 4],
     [3, 3, 3, 4, 3, 1, 1, 1],
     [1, 1, 1, 1, 1, 1, 1, 1],
     [1, 1, 1, 1, 1, 1, 1, 1],
     [1, 1, 1, 1, 1, 1, 1, 1],
     [1, 1, 1, 4, 2, 3, 1, 3],
     [1, 3, 1, 3, 1, 1, 2, 1],
     [1, 1, 2, 1, 1, 1, 2, 1],
     [1, 1, 1, 1, 1, 1, 1, 2],
     [2, 2, 3, 2, 2, 2, 1, 1],
     [4, 3, 2, 2, 2, 0, 3, 3],
     [3, 4, 3, 3, 3, 2, 4, 3],
     [2, 2, 2, 3, 3, 3, 3, 4],
     [3, 3, 3, 2, 4, 3, 2, 2],
     [2, 3, 3, 3, 3, 4, 3, 3],
     [3, 2, 4, 3, 2, 2, 2, 3],
     [3, 3, 3, 4, 3, 3, 3, 2],
     [4, 3, 2, 2, 2, 3, 3, 3],
     [3, 4, 3, 3, 3, 2, 1, 4],
     [3, 2, 2, 2, 3, 3, 3, 3],
     [4, 3, 3, 3, 2, 0, 0, 9],
     [0, 0, 7, 10, 10, 9, 7, 0],
     [0, 6, 0, 0, 4, 3, 2, 3],
     [0, 7, 2, 4, 2, 1, 1, 0],
     [3, 3, 3, 3, 3, 4, 4, 4],
     [3, 3, 3, 3, 3, 3, 7, 7],
     [7, 8, 7, 3, 3, 4, 3, 3],
     [3, 4, 3, 3, 3, 4, 3, 1],
     [1, 1, 1, 1, 1, 1, 1, 1],
     [1, 1, 1, 1, 1, 1, 1, 1],
     [1, 1, 1, 1, 1, 1, 1, 1],
     [1, 1, 1, 1, 1, 4, 2, 3],
     [1, 3, 1, 3, 1, 4, 1, 1],
     [2, 1, 1, 1, 2, 1, 1, 1],
     [2, 1, 1, 1, 1, 1, 1, 1],
     [1, 2, 2, 2, 3, 2, 2, 2],
     [1, 1, 4, 3, 2, 2, 2, 0],
     [3, 3, 3, 4, 3, 3, 3, 2],
     [4, 3, 2, 2, 2, 3, 3, 3],
     [3, 4, 3, 3, 3, 2, 4, 3],
     [2, 2, 2, 3, 3, 3, 3, 4],
     [3, 3, 3, 2, 4, 3, 2, 2],
     [2, 3, 3, 3, 3, 4, 3, 3],
     [3, 2, 4, 3, 2, 2, 2, 3],
     [3, 3, 3, 4, 3, 3, 3, 2],
     [1, 4, 3, 2, 2, 2, 3, 3],
     [3, 3, 4, 3, 3, 3, 2, 0],
     [0, 9, 0, 0, 7, 4, 4, 4],
     [11, 7, 0, 0, 6, 0, 0, 4],
     [3, 2, 3, 0, 7, 2, 4, 2],
     [1, 1, 0, 3, 11, 9, 0, 0],
     [9, 8, 0, 0, 7, 8, 0, 0]]"

definition smp_single_lengths_7 :: "int list list" where
  "smp_single_lengths_7 =
    [[8, 0, 0, 5, 11, 9, 13, 12],
     [7, 7, 7, 13, 9, 11, 11, 9],
     [13, 12, 7, 7, 7, 11, 11, 11],
     [11, 11, 11, 11, 11, 9, 21, 12],
     [7, 7, 7, 14, 14, 14, 12, 16],
     [14, 12, 14, 12, 14, 14, 12, 14],
     [14, 12, 3, 3, 3, 3, 4, 4],
     [4, 3, 3, 3, 3, 3, 3, 7],
     [7, 7, 8, 7, 3, 3, 4, 3],
     [3, 3, 4, 3, 3, 3, 4, 3],
     [1, 1, 1, 1, 1, 1, 1, 1],
     [1, 1, 1, 1, 1, 1, 1, 1],
     [1, 1, 1, 1, 1, 1, 1, 1],
     [1, 1, 1, 1, 1, 1, 4, 2],
     [3, 1, 3, 1, 3, 1, 4, 1],
     [1, 2, 1, 1, 1, 2, 1, 1],
     [1, 2, 1, 1, 1, 1, 1, 1],
     [1, 1, 2, 2, 2, 3, 2, 2],
     [2, 1, 1, 4, 3, 2, 2, 2],
     [0, 3, 3, 3, 4, 3, 3, 3],
     [2, 4, 3, 2, 2, 2, 3, 3],
     [3, 3, 4, 3, 3, 3, 2, 4],
     [3, 2, 2, 2, 3, 3, 3, 3],
     [4, 3, 3, 3, 2, 4, 3, 2],
     [2, 2, 3, 3, 3, 3, 4, 3],
     [3, 3, 2, 4, 3, 2, 2, 2],
     [3, 3, 3, 3, 4, 3, 3, 3],
     [2, 1, 4, 3, 2, 2, 2, 3],
     [3, 3, 3, 4, 3, 3, 3, 2],
     [11, 10, 11, 9, 12, 10, 10, 8],
     [7, 7, 7, 9, 9, 9, 9, 9],
     [10, 10, 10, 9, 19, 14, 0, 0],
     [14, 0, 0, 14, 14, 0, 0, 11],
     [14, 14, 0, 0, 12, 12, 0, 0],
     [13, 0, 0, 14, 0, 0, 13, 14],
     [0, 0, 13, 16, 14, 16, 16, 7],
     [7, 18, 14, 16, 16, 14, 16, 16],
     [7, 7, 16, 16, 16, 16, 16, 16],
     [16, 16, 14, 24, 16, 7, 7, 18],
     [18, 18, 16, 20, 18, 16, 18, 16],
     [18, 18, 16, 18, 18, 16, 12, 11],
     [12, 11, 12, 12, 12, 12, 13, 12],
     [11, 11, 12, 11, 11, 11, 12, 11],
     [11, 11, 12, 11, 2, 4, 4, 2],
     [3, 3, 3, 4, 5, 7, 0, 0],
     [6, 6, 6, 6, 4, 6, 6, 6],
     [6, 6, 6, 6, 4, 8, 9, 9],
     [12, 10, 9, 12, 10, 9, 2, 0],
     [2, 6, 6, 5, 6, 6, 5, 6],
     [6, 6, 6, 6, 5, 7, 7, 7],
     [6, 0, 1, 0, 1, 0, 0, 0],
     [1, 1, 1, 1, 1, 6, 7, 6],
     [5, 6, 6, 6, 5, 6, 6, 6],
     [6, 6, 6, 5, 6, 6, 6, 6],
     [6, 5, 6, 6, 6, 6, 6, 6],
     [5, 7, 6, 6, 6, 5, 8, 6],
     [6, 6, 6, 5, 6, 5, 6, 5],
     [6, 7, 6, 6, 5, 6, 6, 6],
     [6, 6, 5, 9, 6, 6, 6, 5],
     [6, 6, 6, 6, 6, 6, 6, 5],
     [6, 6, 6, 6, 6, 5, 7, 0]]"

definition smp_range_lengths_1 :: "int list list" where
  "smp_range_lengths_1 =
    [[0, 5, 0, 5, 0, 5, 2, 4],
     [3, 0, 0, 0, 0, 0, 1, 1],
     [1, 1, 0, 5, 0, 5, 0, 6],
     [7, 1, 1, 1, 1, 1, 0, 5],
     [5, 5, 5, 4, 5, 5, 5, 0],
     [7, 0, 0, 7, 6, 7, 7, 5],
     [5, 5, 5, 5, 5, 0, 11, 0],
     [5, 11, 0, 5, 6, 7, 7, 7],
     [7, 11, 9, 10, 10, 11, 10, 10],
     [10, 10, 10, 10, 10, 10, 10, 10],
     [9, 8, 8, 8, 7, 11, 10, 10],
     [10, 10, 10, 10, 10, 6, 6, 0],
     [5, 6, 11, 0, 5, 11, 11, 11],
     [0, 5, 11, 5, 0, 6, 0, 0],
     [6, 0, 0, 0, 2, 4, 3, 3],
     [3, 3, 3, 4, 3, 3, 3, 3],
     [3, 3, 3, 3, 3, 3, 2, 1],
     [1, 1, 0, 0, 0, 5, 0, 0],
     [5, 0, 5, 0, 0, 5, 5, 0],
     [0, 0, 0, 5, 0, 0, 5, 5],
     [0, 0, 0, 6, 1, 1, 1, 1],
     [1, 0, 0, 0, 3, 3, 3, 3],
     [3, 0, 3, 3, 3, 3, 0, 3],
     [3, 3, 3, 0, 3, 3, 3, 3],
     [0, 3, 3, 3, 3, 0, 3, 3],
     [3, 3, 0, 3, 3, 1, 0, 1],
     [0, 1, 0, 1, 1, 2, 1, 1],
     [1, 2, 1, 1, 1, 2, 1, 3],
     [3, 0, 3, 3, 3, 3, 3, 3],
     [3, 4, 4, 3, 3, 3, 3, 3],
     [3, 3, 3, 0, 3, 3, 3, 3],
     [4, 4, 3, 3, 3, 3, 3, 3],
     [3, 0, 3, 3, 3, 3, 4, 4],
     [3, 3, 3, 3, 3, 3, 3, 0],
     [3, 3, 3, 3, 4, 4, 3, 3],
     [3, 3, 3, 3, 3, 0, 3, 3],
     [3, 3, 4, 4, 3, 3, 3, 3],
     [3, 3, 3, 0, 3, 3, 3, 3],
     [4, 4, 3, 3, 3, 0, 3, 3],
     [3, 3, 0, 3, 3, 3, 3, 4],
     [4, 3, 3, 3, 0, 5, 5, 0],
     [5, 0, 5, 5, 4, 0, 0, 0],
     [0, 5, 0, 0, 5, 0, 5, 5],
     [0, 1, 0, 0, 1, 1, 1, 1],
     [1, 1, 1, 1, 1, 0, 5, 5],
     [4, 5, 5, 5, 5, 5, 5, 5],
     [5, 5, 0, 1, 0, 0, 1, 1],
     [1, 1, 0, 5, 5, 5, 5, 4],
     [5, 5, 5, 5, 5, 5, 5, 5],
     [0, 5, 0, 0, 5, 4, 0, 0],
     [0, 0, 5, 0, 0, 5, 0, 5],
     [5, 5, 5, 5, 5, 5, 5, 0],
     [5, 0, 0, 5, 4, 0, 0, 0],
     [0, 5, 0, 0, 5, 0, 5, 5],
     [5, 5, 5, 5, 5, 5, 5, 5],
     [0, 6, 0, 0, 6, 0, 0, 0],
     [2, 4, 3, 3, 3, 3, 3, 4],
     [3, 3, 3, 3, 3, 3, 3, 3],
     [3, 3, 2, 1, 1, 1, 0, 0],
     [0, 5, 0, 0, 5, 0, 5, 0],
     [0, 5, 5, 0, 0, 0, 0, 5],
     [0, 0, 5, 5, 0, 0, 0, 6],
     [1, 1, 1, 1, 1, 0, 0, 0],
     [3, 3, 3, 3, 3, 0, 3, 3],
     [3, 3, 0, 3, 3, 3, 3, 0],
     [3, 3, 3, 3, 0, 3, 3, 3],
     [3, 0, 3, 3, 3, 3, 0, 3],
     [3, 1, 0, 1, 0, 1, 0, 1],
     [1, 2, 1, 1, 1, 2, 1, 1],
     [1, 2, 1, 3, 3, 0, 3, 3],
     [3, 3, 3, 3, 3, 4, 4, 3],
     [3, 3, 3, 3, 3, 3, 3, 0],
     [3, 3, 3, 3, 4, 4, 3, 3],
     [3, 3, 3, 3, 3, 0, 3, 3],
     [3, 3, 4, 4, 3, 3, 3, 3],
     [3, 3, 3, 0, 3, 3, 3, 3],
     [4, 4, 3, 3, 3, 3, 3, 3],
     [3, 0, 3, 3, 3, 3, 4, 4],
     [3, 3, 3, 3, 3, 3, 3, 0],
     [3, 3, 3, 3, 4, 4, 3, 3],
     [3, 0, 3, 3, 3, 3, 0, 3],
     [3, 3, 3, 4, 4, 3, 3, 3],
     [0, 5, 5, 0, 5, 0, 0, 5],
     [4, 0, 0, 0, 0, 5, 0, 0],
     [5, 4, 0, 0, 0, 0, 5, 0],
     [0, 5, 5, 3, 0, 0, 3, 3],
     [3, 3, 3, 3, 0, 0, 0, 0],
     [5, 0, 0, 5, 2, 0, 0, 2],
     [1, 1, 1, 0, 0, 0, 0, 0],
     [5, 0, 0, 5, 4, 0, 0, 0],
     [0, 5, 0, 0, 5, 4, 0, 5],
     [6, 1, 1, 1, 1, 1, 0, 0],
     [0, 3, 3, 3, 3, 3, 0, 3],
     [3, 3, 3, 0, 3, 3, 3, 3],
     [0, 3, 3, 3, 3, 0, 3, 3],
     [3, 3, 0, 3, 3, 3, 3, 0],
     [3, 3, 1, 0, 1, 0, 1, 0],
     [1, 1, 2, 1, 1, 1, 2, 1],
     [1, 1, 2, 1, 3, 3, 0, 3],
     [3, 3, 3, 3, 3, 3, 4, 4],
     [3, 3, 3, 3, 3, 3, 3, 3],
     [0, 3, 3, 3, 3, 4, 4, 3],
     [3, 3, 3, 3, 3, 3, 0, 3],
     [3, 3, 3, 4, 4, 3, 3, 3],
     [3, 3, 3, 3, 0, 3, 3, 3],
     [3, 4, 4, 3, 3, 3, 3, 3],
     [3, 3, 0, 3, 3, 3, 3, 4],
     [4, 3, 3, 3, 3, 3, 3, 3],
     [0, 3, 3, 3, 3, 4, 4, 3],
     [3, 3, 0, 3, 3, 3, 3, 0],
     [3, 3, 3, 3, 4, 4, 3, 3],
     [3, 0, 5, 4, 4, 4, 4, 4],
     [0, 0, 0, 0, 5, 0, 0, 5],
     [4, 0, 5, 4, 4, 4, 4, 4],
     [5, 0, 0, 0, 0, 5, 0, 0],
     [5, 4, 4, 4, 4, 4, 4, 4],
     [4, 4, 4, 4, 4, 4, 4, 4],
     [5, 0, 0, 0, 0, 3, 0, 0],
     [3, 3, 1, 0, 1, 0, 1, 0],
     [1, 1, 2, 1, 1, 1, 2, 1],
     [1, 1, 2, 1, 3, 3, 0, 3],
     [3, 3, 3, 0, 3, 3, 3, 3],
     [0, 3, 3, 3, 3, 0, 3, 3],
     [3, 3, 0, 3, 3, 3, 3, 0],
     [3, 3, 3, 3, 0, 3, 3, 3],
     [3, 3, 3, 3, 4, 4, 3, 3],
     [3, 3, 3, 3, 3, 3, 0, 3],
     [3, 3, 3, 4, 4, 3, 3, 3],
     [3, 3, 3, 3, 0, 3, 3, 3],
     [3, 4, 4, 3, 3, 3, 3, 3],
     [3, 3, 0, 3, 3, 3, 3, 4],
     [4, 3, 3, 3, 3, 3, 3, 3],
     [0, 3, 3, 3, 3, 4, 4, 3],
     [3, 3, 3, 3, 3, 3, 0, 3],
     [3, 3, 3, 4, 4, 3, 3, 3],
     [3, 3, 3, 4, 4, 3, 3, 0],
     [3, 3, 3, 3, 0, 3, 3, 3],
     [3, 4, 4, 3, 3, 3, 3, 4],
     [4, 4, 4, 0, 0, 0, 0, 2],
     [0, 0, 2, 1, 1, 1, 0, 1],
     [1, 1, 1, 2, 2, 2, 1, 0],
     [5, 1, 1, 1, 1, 2, 2, 2],
     [1, 0, 5, 3, 3, 3, 3, 3],
     [3, 3, 3, 3, 3, 4, 4, 3],
     [3, 4, 4, 3, 3, 4, 4, 3],
     [3, 4, 4, 3, 3, 3, 3, 0],
     [3, 3, 3, 3, 0, 3, 3, 3],
     [3, 0, 3, 3, 3, 3, 0, 3],
     [3, 3, 3, 0, 3, 3, 3, 3],
     [0, 3, 3, 1, 0, 1, 0, 1]]"

definition smp_range_lengths_2 :: "int list list" where
  "smp_range_lengths_2 =
    [[0, 0, 1, 1, 2, 1, 1, 1],
     [2, 1, 1, 1, 2, 1, 3, 3],
     [0, 3, 3, 3, 3, 3, 3, 3],
     [4, 4, 3, 3, 3, 3, 3, 3],
     [3, 3, 0, 3, 3, 3, 3, 4],
     [4, 3, 3, 3, 3, 3, 3, 3],
     [0, 3, 3, 3, 3, 4, 4, 3],
     [3, 3, 3, 3, 3, 3, 0, 3],
     [3, 3, 3, 4, 4, 3, 3, 3],
     [3, 3, 3, 3, 0, 3, 3, 3],
     [3, 4, 4, 3, 3, 3, 3, 3],
     [3, 3, 0, 3, 3, 3, 3, 4],
     [4, 3, 3, 3, 0, 3, 3, 3],
     [3, 0, 3, 3, 3, 3, 4, 4],
     [3, 3, 3, 5, 5, 5, 5, 5],
     [0, 0, 0, 0, 5, 0, 0, 5],
     [5, 0, 5, 3, 3, 3, 1, 1],
     [1, 1, 2, 2, 2, 1, 3, 3],
     [3, 3, 3, 3, 3, 3, 4, 4],
     [3, 3, 4, 4, 3, 3, 4, 4],
     [3, 3, 4, 4, 3, 3, 3, 3],
     [0, 3, 3, 3, 3, 0, 3, 3],
     [3, 3, 0, 3, 3, 3, 3, 0],
     [3, 3, 3, 3, 0, 3, 3, 3],
     [3, 0, 3, 3, 1, 0, 1, 0],
     [1, 0, 0, 1, 1, 2, 1, 1],
     [1, 2, 1, 1, 1, 2, 1, 3],
     [3, 0, 3, 3, 3, 3, 3, 3],
     [3, 4, 4, 3, 3, 3, 3, 3],
     [3, 3, 3, 0, 3, 3, 3, 3],
     [4, 4, 3, 3, 3, 3, 3, 3],
     [3, 0, 3, 3, 3, 3, 4, 4],
     [3, 3, 3, 3, 3, 3, 3, 0],
     [3, 3, 3, 3, 4, 4, 3, 3],
     [3, 3, 3, 3, 3, 0, 3, 3],
     [3, 3, 4, 4, 3, 3, 3, 3],
     [3, 3, 3, 0, 3, 3, 3, 3],
     [4, 4, 3, 3, 3, 0, 3, 3],
     [3, 3, 0, 3, 3, 3, 3, 4],
     [4, 3, 3, 3, 3, 3, 4, 3],
     [3, 3, 3, 3, 3, 3, 3, 3],
     [4, 3, 3, 3, 3, 3, 3, 3],
     [3, 3, 3, 2, 1, 1, 1, 0],
     [1, 1, 1, 1, 2, 2, 2, 1],
     [3, 3, 3, 3, 3, 3, 3, 3],
     [4, 4, 3, 3, 4, 4, 3, 3],
     [4, 4, 3, 3, 4, 4, 3, 3],
     [3, 3, 0, 3, 3, 3, 3, 0],
     [3, 3, 3, 3, 0, 3, 3, 3],
     [3, 0, 3, 3, 3, 3, 0, 3],
     [3, 3, 3, 0, 3, 3, 1, 0],
     [1, 0, 1, 0, 0, 1, 1, 2],
     [1, 1, 1, 2, 1, 1, 1, 2],
     [1, 3, 3, 0, 3, 3, 3, 3],
     [3, 3, 3, 4, 4, 3, 3, 3],
     [3, 3, 3, 3, 3, 0, 3, 3],
     [3, 3, 4, 4, 3, 3, 3, 3],
     [3, 3, 3, 0, 3, 3, 3, 3],
     [4, 4, 3, 3, 3, 3, 3, 3],
     [3, 0, 3, 3, 3, 3, 4, 4],
     [3, 3, 3, 3, 3, 3, 3, 0],
     [3, 3, 3, 3, 4, 4, 3, 3],
     [3, 3, 3, 3, 3, 0, 3, 3],
     [3, 3, 4, 4, 3, 3, 3, 0],
     [3, 3, 3, 3, 0, 3, 3, 3],
     [3, 4, 4, 3, 3, 3, 3, 3],
     [4, 3, 3, 3, 4, 4, 4, 4],
     [3, 3, 3, 4, 3, 3, 3, 3],
     [3, 3, 3, 3, 3, 3, 2, 1],
     [1, 1, 0, 4, 4, 3, 3, 4],
     [4, 3, 3, 4, 4, 3, 3, 4],
     [3, 3, 4, 4, 4, 5, 5, 8],
     [5, 8, 4, 4, 4, 4, 4, 5],
     [5, 8, 5, 8, 4, 4, 4, 4],
     [4, 4, 4, 4, 4, 5, 5, 8],
     [5, 8, 5, 5, 5, 5, 5, 5],
     [5, 5, 5, 5, 5, 5, 5, 5],
     [5, 1, 1, 1, 1, 2, 2, 2],
     [1, 3, 3, 3, 3, 3, 3, 3],
     [3, 4, 4, 3, 3, 4, 4, 3],
     [3, 4, 4, 3, 3, 4, 4, 3],
     [3, 3, 3, 0, 3, 3, 3, 3],
     [0, 3, 3, 3, 3, 0, 3, 3],
     [3, 3, 0, 3, 3, 3, 3, 0],
     [3, 3, 3, 3, 0, 3, 3, 1],
     [0, 1, 0, 1, 0, 0, 1, 1],
     [2, 1, 1, 1, 2, 1, 1, 1],
     [2, 1, 3, 3, 0, 3, 3, 3],
     [3, 3, 3, 3, 4, 4, 3, 3],
     [3, 3, 3, 3, 3, 3, 0, 3],
     [3, 3, 3, 4, 4, 3, 3, 3],
     [3, 3, 3, 3, 0, 3, 3, 3],
     [3, 4, 4, 3, 3, 3, 3, 3],
     [3, 3, 0, 3, 3, 3, 3, 4],
     [4, 3, 3, 3, 3, 3, 3, 3],
     [0, 3, 3, 3, 3, 4, 4, 3],
     [3, 3, 3, 3, 3, 3, 0, 3],
     [3, 3, 3, 4, 4, 3, 3, 3],
     [0, 3, 3, 3, 3, 0, 3, 3],
     [3, 3, 4, 4, 3, 3, 3, 4],
     [4, 4, 4, 4, 4, 4, 5, 4],
     [4, 4, 4, 4, 4, 4, 4, 5],
     [5, 5, 5, 3, 3, 3, 3, 3],
     [3, 3, 3, 3, 3, 3, 3, 3],
     [3, 3, 3, 4, 4, 3, 3, 3],
     [3, 3, 3, 3, 3, 3, 3, 3],
     [3, 3, 3, 3, 4, 4, 8, 8],
     [3, 3, 3, 3, 3, 4, 4, 8],
     [8, 3, 3, 3, 3, 3, 3, 3],
     [3, 3, 4, 4, 8, 8, 4, 4],
     [4, 4, 4, 4, 4, 4, 4, 4],
     [4, 4, 4, 4, 4, 4, 4, 4],
     [4, 4, 4, 4, 4, 5, 5, 4],
     [4, 5, 5, 4, 4, 5, 5, 4],
     [4, 5, 5, 4, 4, 4, 4, 5],
     [5, 3, 3, 4, 4, 3, 3, 3],
     [3, 3, 3, 3, 3, 3, 3, 3],
     [3, 3, 3, 3, 5, 7, 6, 4],
     [5, 5, 4, 5, 5, 5, 3, 3],
     [5, 5, 0, 0, 5, 6, 1, 1],
     [1, 1, 1, 0, 0, 0, 0, 3],
     [5, 4, 4, 4, 3, 3, 5, 3],
     [3, 3, 3, 3, 3, 3, 3, 3],
     [3, 2, 1, 1, 1, 0, 1, 1],
     [1, 1, 2, 2, 2, 1, 3, 3],
     [3, 3, 3, 3, 3, 3, 4, 4],
     [3, 3, 4, 4, 3, 3, 4, 4],
     [3, 3, 4, 4, 3, 3, 3, 3],
     [0, 3, 3, 3, 3, 0, 3, 3],
     [3, 3, 0, 3, 3, 3, 3, 0],
     [3, 3, 3, 3, 0, 3, 3, 3],
     [3, 0, 3, 3, 1, 0, 1, 0],
     [1, 0, 0, 1, 1, 2, 1, 1],
     [1, 2, 1, 1, 1, 2, 1, 3],
     [3, 0, 3, 3, 3, 3, 3, 3],
     [3, 4, 4, 3, 3, 3, 3, 3],
     [3, 3, 3, 0, 3, 3, 3, 3],
     [4, 4, 3, 3, 3, 3, 3, 3],
     [3, 0, 3, 3, 3, 3, 4, 4],
     [3, 3, 3, 3, 3, 3, 3, 0],
     [3, 3, 3, 3, 4, 4, 3, 3],
     [3, 3, 3, 3, 3, 0, 3, 3],
     [3, 3, 4, 4, 3, 3, 3, 3],
     [3, 3, 3, 0, 3, 3, 3, 3],
     [4, 4, 3, 3, 3, 0, 3, 3],
     [3, 3, 0, 3, 3, 3, 3, 4],
     [4, 3, 3, 3, 3, 3, 4, 3],
     [3, 4, 3, 3, 4, 4, 4, 4],
     [4, 3, 3, 5, 3, 3, 3, 3],
     [3, 3, 3, 3, 3, 3, 2, 1]]"

definition smp_range_lengths_3 :: "int list list" where
  "smp_range_lengths_3 =
    [[1, 1, 0, 1, 1, 1, 1, 2],
     [2, 2, 1, 3, 3, 3, 3, 3],
     [3, 3, 3, 4, 4, 3, 3, 4],
     [4, 3, 3, 4, 4, 3, 3, 4],
     [4, 3, 3, 3, 3, 0, 3, 3],
     [3, 3, 0, 3, 3, 3, 3, 0],
     [3, 3, 3, 3, 0, 3, 3, 3],
     [3, 0, 3, 3, 3, 3, 0, 3],
     [3, 1, 0, 1, 0, 1, 0, 0],
     [1, 1, 2, 1, 1, 1, 2, 1],
     [1, 1, 2, 1, 3, 3, 0, 3],
     [3, 3, 3, 3, 3, 3, 4, 4],
     [3, 3, 3, 3, 3, 3, 3, 3],
     [0, 3, 3, 3, 3, 4, 4, 3],
     [3, 3, 3, 3, 3, 3, 0, 3],
     [3, 3, 3, 4, 4, 3, 3, 3],
     [3, 3, 3, 3, 0, 3, 3, 3],
     [3, 4, 4, 3, 3, 3, 3, 3],
     [3, 3, 0, 3, 3, 3, 3, 4],
     [4, 3, 3, 3, 3, 3, 3, 3],
     [0, 3, 3, 3, 3, 4, 4, 3],
     [3, 3, 0, 3, 3, 3, 3, 0],
     [3, 3, 3, 3, 4, 4, 3, 3],
     [3, 3, 3, 4, 3, 3, 4, 5],
     [5, 5, 5, 4, 3, 3, 5, 3],
     [3, 3, 3, 3, 3, 3, 3, 3],
     [3, 2, 1, 1, 1, 0, 1, 1],
     [1, 1, 2, 2, 2, 1, 3, 3],
     [3, 3, 3, 3, 3, 3, 4, 4],
     [3, 3, 4, 4, 3, 3, 4, 4],
     [3, 3, 4, 4, 3, 3, 3, 3],
     [0, 3, 3, 3, 3, 0, 3, 3],
     [3, 3, 0, 3, 3, 3, 3, 0],
     [3, 3, 3, 3, 0, 3, 3, 3],
     [3, 0, 3, 3, 1, 0, 1, 0],
     [1, 0, 0, 1, 1, 2, 1, 1],
     [1, 2, 1, 1, 1, 2, 1, 3],
     [3, 0, 3, 3, 3, 3, 3, 3],
     [3, 4, 4, 3, 3, 3, 3, 3],
     [3, 3, 3, 0, 3, 3, 3, 3],
     [4, 4, 3, 3, 3, 3, 3, 3],
     [3, 0, 3, 3, 3, 3, 4, 4],
     [3, 3, 3, 3, 3, 3, 3, 0],
     [3, 3, 3, 3, 4, 4, 3, 3],
     [3, 3, 3, 3, 3, 0, 3, 3],
     [3, 3, 4, 4, 3, 3, 3, 3],
     [3, 3, 3, 0, 3, 3, 3, 3],
     [4, 4, 3, 3, 3, 0, 3, 3],
     [3, 3, 0, 3, 3, 3, 3, 4],
     [4, 3, 3, 3, 4, 5, 4, 5],
     [4, 5, 5, 6, 5, 5, 5, 5],
     [5, 5, 5, 5, 6, 6, 6, 6],
     [5, 4, 5, 4, 5, 4, 4, 4],
     [5, 5, 4, 4, 5, 5, 4, 4],
     [5, 5, 4, 4, 5, 5, 5, 5],
     [5, 5, 5, 5, 5, 3, 3, 5],
     [5, 5, 5, 5, 0, 5, 0, 0],
     [5, 0, 0, 0, 0, 0, 0, 0],
     [4, 3, 3, 3, 4, 3, 3, 3],
     [3, 3, 3, 3, 3, 3, 3, 2],
     [1, 1, 1, 0, 4, 4, 3, 3],
     [4, 4, 3, 3, 0, 0, 0, 0],
     [0, 5, 0, 0, 5, 5, 5, 0],
     [0, 5, 6, 1, 1, 1, 1, 1],
     [0, 0, 0, 0, 3, 5, 0, 0],
     [5, 4, 0, 0, 0, 0, 5, 0],
     [0, 5, 4, 0, 5, 6, 1, 1],
     [1, 1, 1, 0, 0, 3, 3, 3],
     [3, 3, 0, 3, 3, 3, 3, 0],
     [3, 3, 3, 3, 0, 3, 3, 3],
     [3, 0, 3, 3, 3, 3, 0, 3],
     [3, 3, 3, 0, 3, 3, 1, 0],
     [1, 0, 1, 0, 1, 1, 2, 1],
     [1, 1, 2, 1, 1, 1, 2, 1],
     [3, 3, 0, 3, 3, 3, 3, 3],
     [3, 3, 4, 4, 3, 3, 3, 3],
     [3, 3, 3, 3, 0, 3, 3, 3],
     [3, 4, 4, 3, 3, 3, 3, 3],
     [3, 3, 0, 3, 3, 3, 3, 4],
     [4, 3, 3, 3, 3, 3, 3, 3],
     [0, 3, 3, 3, 3, 4, 4, 3],
     [3, 3, 3, 3, 3, 3, 0, 3],
     [3, 3, 3, 4, 4, 3, 3, 3],
     [3, 3, 3, 3, 0, 3, 3, 3],
     [3, 4, 4, 3, 3, 3, 0, 3],
     [3, 3, 3, 0, 3, 3, 3, 3],
     [4, 4, 3, 3, 3, 0, 5, 4],
     [4, 3, 3, 4, 3, 3, 4, 4],
     [4, 5, 5, 8, 5, 8, 4, 4],
     [4, 4, 4, 5, 5, 8, 5, 8],
     [4, 4, 4, 4, 4, 4, 4, 4],
     [4, 5, 5, 8, 5, 8, 5, 5],
     [5, 5, 5, 5, 5, 5, 5, 5],
     [5, 5, 5, 5, 5, 1, 1, 1],
     [1, 2, 2, 2, 1, 3, 3, 3],
     [3, 3, 3, 3, 3, 4, 4, 3],
     [3, 4, 4, 3, 3, 4, 4, 3],
     [3, 4, 4, 3, 3, 3, 3, 0],
     [3, 3, 3, 3, 0, 3, 3, 3],
     [3, 0, 3, 3, 3, 3, 0, 3],
     [3, 3, 3, 0, 3, 3, 3, 3],
     [0, 3, 3, 1, 0, 1, 0, 1],
     [0, 0, 1, 1, 2, 1, 1, 1],
     [2, 1, 1, 1, 2, 1, 3, 3],
     [0, 3, 3, 3, 3, 3, 3, 3],
     [4, 4, 3, 3, 3, 3, 3, 3],
     [3, 3, 0, 3, 3, 3, 3, 4],
     [4, 3, 3, 3, 3, 3, 3, 3],
     [0, 3, 3, 3, 3, 4, 4, 3],
     [3, 3, 3, 3, 3, 3, 0, 3],
     [3, 3, 3, 4, 4, 3, 3, 3],
     [3, 3, 3, 3, 0, 3, 3, 3],
     [3, 4, 4, 3, 3, 3, 3, 3],
     [3, 3, 0, 3, 3, 3, 3, 4],
     [4, 3, 3, 3, 0, 3, 3, 3],
     [3, 0, 3, 3, 3, 3, 4, 4],
     [3, 3, 3, 4, 4, 4, 4, 4],
     [4, 4, 5, 4, 4, 4, 4, 4],
     [4, 4, 4, 5, 5, 5, 5, 3],
     [3, 3, 3, 3, 3, 3, 3, 3],
     [3, 3, 3, 3, 3, 3, 3, 4],
     [4, 3, 3, 3, 3, 3, 3, 3],
     [3, 3, 3, 3, 3, 3, 3, 3],
     [4, 4, 8, 8, 3, 3, 3, 3],
     [3, 4, 4, 8, 8, 3, 3, 3],
     [3, 3, 3, 3, 3, 3, 4, 4],
     [8, 8, 4, 4, 4, 4, 4, 4],
     [4, 4, 4, 4, 4, 4, 4, 4],
     [4, 4, 4, 4, 4, 4, 4, 4],
     [4, 5, 5, 4, 4, 5, 5, 4],
     [4, 5, 5, 4, 4, 5, 5, 0],
     [5, 5, 5, 0, 0, 0, 0, 5],
     [0, 0, 5, 5, 0, 5, 3, 3],
     [3, 1, 1, 1, 1, 2, 2, 2],
     [1, 3, 3, 3, 3, 3, 3, 3],
     [3, 4, 4, 3, 3, 4, 4, 3],
     [3, 4, 4, 3, 3, 4, 4, 3],
     [3, 3, 3, 0, 3, 3, 3, 3],
     [0, 3, 3, 3, 3, 0, 3, 3],
     [3, 3, 0, 3, 3, 3, 3, 0],
     [3, 3, 3, 3, 0, 3, 3, 1],
     [0, 1, 0, 1, 0, 0, 1, 1],
     [2, 1, 1, 1, 2, 1, 1, 1],
     [2, 1, 3, 3, 0, 3, 3, 3],
     [3, 3, 3, 3, 4, 4, 3, 3],
     [3, 3, 3, 3, 3, 3, 0, 3],
     [3, 3, 3, 4, 4, 3, 3, 3],
     [3, 3, 3, 3, 0, 3, 3, 3],
     [3, 4, 4, 3, 3, 3, 3, 3],
     [3, 3, 0, 3, 3, 3, 3, 4]]"

definition smp_range_lengths_4 :: "int list list" where
  "smp_range_lengths_4 =
    [[4, 3, 3, 3, 3, 3, 3, 3],
     [0, 3, 3, 3, 3, 4, 4, 3],
     [3, 3, 3, 3, 3, 3, 0, 3],
     [3, 3, 3, 4, 4, 3, 3, 3],
     [0, 3, 3, 3, 3, 0, 3, 3],
     [3, 3, 4, 4, 3, 3, 3, 3],
     [3, 4, 3, 3, 3, 3, 3, 3],
     [3, 3, 3, 4, 3, 3, 3, 3],
     [3, 3, 3, 3, 3, 3, 2, 1],
     [1, 1, 0, 1, 1, 1, 1, 2],
     [2, 2, 1, 3, 3, 3, 3, 3],
     [3, 3, 3, 4, 4, 3, 3, 4],
     [4, 3, 3, 4, 4, 3, 3, 4],
     [4, 3, 3, 3, 3, 0, 3, 3],
     [3, 3, 0, 3, 3, 3, 3, 0],
     [3, 3, 3, 3, 0, 3, 3, 3],
     [3, 0, 3, 3, 3, 3, 0, 3],
     [3, 1, 0, 1, 0, 1, 0, 0],
     [1, 1, 2, 1, 1, 1, 2, 1],
     [1, 1, 2, 1, 3, 3, 0, 3],
     [3, 3, 3, 3, 3, 3, 4, 4],
     [3, 3, 3, 3, 3, 3, 3, 3],
     [0, 3, 3, 3, 3, 4, 4, 3],
     [3, 3, 3, 3, 3, 3, 0, 3],
     [3, 3, 3, 4, 4, 3, 3, 3],
     [3, 3, 3, 3, 0, 3, 3, 3],
     [3, 4, 4, 3, 3, 3, 3, 3],
     [3, 3, 0, 3, 3, 3, 3, 4],
     [4, 3, 3, 3, 3, 3, 3, 3],
     [0, 3, 3, 3, 3, 4, 4, 3],
     [3, 3, 0, 3, 3, 3, 3, 0],
     [3, 3, 3, 3, 4, 4, 3, 3],
     [3, 3, 3, 4, 3, 3, 3, 4],
     [4, 4, 4, 3, 3, 3, 4, 3],
     [3, 3, 3, 3, 3, 3, 3, 3],
     [3, 2, 1, 1, 1, 0, 4, 4],
     [3, 3, 4, 4, 3, 3, 4, 4],
     [3, 3, 4, 3, 3, 4, 4, 4],
     [5, 5, 8, 5, 8, 4, 4, 4],
     [4, 4, 5, 5, 8, 5, 8, 4],
     [4, 4, 4, 4, 4, 4, 4, 4],
     [5, 5, 8, 5, 8, 5, 5, 5],
     [5, 5, 5, 5, 5, 5, 5, 5],
     [5, 5, 5, 5, 1, 1, 1, 1],
     [2, 2, 2, 1, 3, 3, 3, 3],
     [3, 3, 3, 3, 4, 4, 3, 3],
     [4, 4, 3, 3, 4, 4, 3, 3],
     [4, 4, 3, 3, 3, 3, 0, 3],
     [3, 3, 3, 0, 3, 3, 3, 3],
     [0, 3, 3, 3, 3, 0, 3, 3],
     [3, 3, 0, 3, 3, 3, 3, 0],
     [3, 3, 1, 0, 1, 0, 1, 0],
     [0, 1, 1, 2, 1, 1, 1, 2],
     [1, 1, 1, 2, 1, 3, 3, 0],
     [3, 3, 3, 3, 3, 3, 3, 4],
     [4, 3, 3, 3, 3, 3, 3, 3],
     [3, 0, 3, 3, 3, 3, 4, 4],
     [3, 3, 3, 3, 3, 3, 3, 0],
     [3, 3, 3, 3, 4, 4, 3, 3],
     [3, 3, 3, 3, 3, 0, 3, 3],
     [3, 3, 4, 4, 3, 3, 3, 3],
     [3, 3, 3, 0, 3, 3, 3, 3],
     [4, 4, 3, 3, 3, 3, 3, 3],
     [3, 0, 3, 3, 3, 3, 4, 4],
     [3, 3, 3, 0, 3, 3, 3, 3],
     [0, 3, 3, 3, 3, 4, 4, 3],
     [3, 3, 4, 4, 4, 4, 4, 4],
     [4, 5, 4, 4, 4, 4, 4, 4],
     [4, 4, 5, 5, 5, 5, 3, 3],
     [3, 3, 3, 3, 3, 3, 3, 3],
     [3, 3, 3, 3, 3, 3, 4, 4],
     [3, 3, 3, 3, 3, 3, 3, 3],
     [3, 3, 3, 3, 3, 3, 3, 4],
     [4, 8, 8, 3, 3, 3, 3, 3],
     [4, 4, 8, 8, 3, 3, 3, 3],
     [3, 3, 3, 3, 3, 4, 4, 8],
     [8, 4, 4, 4, 4, 4, 4, 4],
     [4, 4, 4, 4, 4, 4, 4, 4],
     [4, 4, 4, 4, 4, 4, 4, 4],
     [5, 5, 4, 4, 5, 5, 4, 4],
     [5, 5, 4, 4, 5, 5, 4, 4],
     [4, 4, 5, 5, 3, 3, 4, 4],
     [3, 3, 3, 3, 3, 3, 3, 3],
     [3, 3, 3, 3, 3, 3, 3, 5],
     [7, 6, 4, 5, 5, 4, 5, 5],
     [5, 3, 3, 5, 5, 0, 0, 5],
     [6, 1, 1, 1, 1, 1, 0, 0],
     [0, 0, 3, 5, 4, 4, 4, 3],
     [3, 5, 3, 3, 3, 3, 3, 3],
     [3, 3, 3, 3, 2, 1, 1, 1],
     [0, 1, 1, 1, 1, 2, 2, 2],
     [1, 3, 3, 3, 3, 3, 3, 3],
     [3, 4, 4, 3, 3, 4, 4, 3],
     [3, 4, 4, 3, 3, 4, 4, 3],
     [3, 3, 3, 0, 3, 3, 3, 3],
     [0, 3, 3, 3, 3, 0, 3, 3],
     [3, 3, 0, 3, 3, 3, 3, 0],
     [3, 3, 3, 3, 0, 3, 3, 1],
     [0, 1, 0, 1, 0, 0, 1, 1],
     [2, 1, 1, 1, 2, 1, 1, 1],
     [2, 1, 3, 3, 0, 3, 3, 3],
     [3, 3, 3, 3, 4, 4, 3, 3],
     [3, 3, 3, 3, 3, 3, 0, 3],
     [3, 3, 3, 4, 4, 3, 3, 3],
     [3, 3, 3, 3, 0, 3, 3, 3],
     [3, 4, 4, 3, 3, 3, 3, 3],
     [3, 3, 0, 3, 3, 3, 3, 4],
     [4, 3, 3, 3, 3, 3, 3, 3],
     [0, 3, 3, 3, 3, 4, 4, 3],
     [3, 3, 3, 3, 3, 3, 0, 3],
     [3, 3, 3, 4, 4, 3, 3, 3],
     [0, 3, 3, 3, 3, 0, 3, 3],
     [3, 3, 4, 4, 3, 3, 3, 3],
     [3, 4, 3, 3, 4, 3, 3, 4],
     [4, 4, 4, 4, 3, 3, 5, 3],
     [3, 3, 3, 3, 3, 3, 3, 3],
     [3, 2, 1, 1, 1, 0, 1, 1],
     [1, 1, 2, 2, 2, 1, 3, 3],
     [3, 3, 3, 3, 3, 3, 4, 4],
     [3, 3, 4, 4, 3, 3, 4, 4],
     [3, 3, 4, 4, 3, 3, 3, 3],
     [0, 3, 3, 3, 3, 0, 3, 3],
     [3, 3, 0, 3, 3, 3, 3, 0],
     [3, 3, 3, 3, 0, 3, 3, 3],
     [3, 0, 3, 3, 1, 0, 1, 0],
     [1, 0, 0, 1, 1, 2, 1, 1],
     [1, 2, 1, 1, 1, 2, 1, 3],
     [3, 0, 3, 3, 3, 3, 3, 3],
     [3, 4, 4, 3, 3, 3, 3, 3],
     [3, 3, 3, 0, 3, 3, 3, 3],
     [4, 4, 3, 3, 3, 3, 3, 3],
     [3, 0, 3, 3, 3, 3, 4, 4],
     [3, 3, 3, 3, 3, 3, 3, 0],
     [3, 3, 3, 3, 4, 4, 3, 3],
     [3, 3, 3, 3, 3, 0, 3, 3],
     [3, 3, 4, 4, 3, 3, 3, 3],
     [3, 3, 3, 0, 3, 3, 3, 3],
     [4, 4, 3, 3, 3, 0, 3, 3],
     [3, 3, 0, 3, 3, 3, 3, 4],
     [4, 3, 3, 3, 3, 3, 4, 3],
     [3, 4, 5, 5, 5, 5, 4, 3],
     [3, 5, 3, 3, 3, 3, 3, 3],
     [3, 3, 3, 3, 2, 1, 1, 1],
     [0, 1, 1, 1, 1, 2, 2, 2],
     [1, 3, 3, 3, 3, 3, 3, 3],
     [3, 4, 4, 3, 3, 4, 4, 3],
     [3, 4, 4, 3, 3, 4, 4, 3],
     [3, 3, 3, 0, 3, 3, 3, 3],
     [0, 3, 3, 3, 3, 0, 3, 3],
     [3, 3, 0, 3, 3, 3, 3, 0]]"

definition smp_range_lengths_5 :: "int list list" where
  "smp_range_lengths_5 =
    [[3, 3, 3, 3, 0, 3, 3, 1],
     [0, 1, 0, 1, 0, 0, 1, 1],
     [2, 1, 1, 1, 2, 1, 1, 1],
     [2, 1, 3, 3, 0, 3, 3, 3],
     [3, 3, 3, 3, 4, 4, 3, 3],
     [3, 3, 3, 3, 3, 3, 0, 3],
     [3, 3, 3, 4, 4, 3, 3, 3],
     [3, 3, 3, 3, 0, 3, 3, 3],
     [3, 4, 4, 3, 3, 3, 3, 3],
     [3, 3, 0, 3, 3, 3, 3, 4],
     [4, 3, 3, 3, 3, 3, 3, 3],
     [0, 3, 3, 3, 3, 4, 4, 3],
     [3, 3, 3, 3, 3, 3, 0, 3],
     [3, 3, 3, 4, 4, 3, 3, 3],
     [0, 3, 3, 3, 3, 0, 3, 3],
     [3, 3, 4, 4, 3, 3, 3, 4],
     [5, 4, 5, 4, 5, 5, 6, 5],
     [5, 5, 5, 5, 5, 5, 5, 6],
     [6, 6, 6, 5, 4, 5, 4, 5],
     [4, 4, 4, 5, 5, 4, 4, 5],
     [5, 4, 4, 5, 5, 4, 4, 5],
     [5, 5, 5, 5, 5, 5, 5, 5],
     [3, 3, 5, 5, 5, 8, 1, 1],
     [1, 1, 1, 0, 5, 6, 6, 9],
     [6, 1, 1, 1, 1, 1, 0, 0],
     [0, 0, 0, 0, 0, 0, 0, 0],
     [0, 4, 3, 3, 3, 4, 3, 3],
     [3, 3, 3, 3, 3, 3, 3, 3],
     [2, 1, 1, 1, 0, 4, 4, 3],
     [3, 4, 4, 3, 3, 0, 0, 0],
     [0, 0, 5, 0, 0, 5, 5, 5],
     [0, 0, 5, 5, 5, 5, 5, 4],
     [3, 3, 5, 3, 3, 3, 3, 3],
     [3, 3, 3, 0, 5, 3, 3, 2],
     [1, 1, 1, 0, 5, 0, 0, 5],
     [4, 0, 0, 0, 0, 5, 0, 0],
     [5, 4, 6, 1, 1, 1, 1, 1],
     [0, 0, 0, 3, 3, 3, 3, 3],
     [0, 3, 3, 3, 3, 0, 3, 3],
     [3, 3, 0, 3, 3, 3, 3, 0],
     [3, 3, 3, 3, 0, 3, 3, 3],
     [3, 0, 3, 3, 1, 0, 1, 0],
     [1, 0, 1, 1, 2, 1, 1, 1],
     [2, 1, 1, 1, 2, 1, 3, 3],
     [0, 3, 3, 3, 3, 3, 3, 3],
     [4, 4, 3, 3, 3, 3, 3, 3],
     [3, 3, 0, 3, 3, 3, 3, 4],
     [4, 3, 3, 3, 3, 3, 3, 3],
     [0, 3, 3, 3, 3, 4, 4, 3],
     [3, 3, 3, 3, 3, 3, 0, 3],
     [3, 3, 3, 4, 4, 3, 3, 3],
     [3, 3, 3, 3, 0, 3, 3, 3],
     [3, 4, 4, 3, 3, 3, 3, 3],
     [3, 3, 0, 3, 3, 3, 3, 4],
     [4, 3, 3, 3, 0, 3, 3, 3],
     [3, 0, 3, 3, 3, 3, 4, 4],
     [3, 3, 3, 0, 5, 4, 4, 4],
     [4, 4, 4, 1, 1, 1, 1, 2],
     [2, 2, 1, 3, 3, 3, 3, 3],
     [3, 3, 3, 4, 4, 3, 3, 4],
     [4, 3, 3, 4, 4, 3, 3, 4],
     [4, 3, 3, 3, 3, 0, 3, 3],
     [3, 3, 0, 3, 3, 3, 3, 0],
     [3, 3, 3, 3, 0, 3, 3, 3],
     [3, 0, 3, 3, 3, 3, 0, 3],
     [3, 1, 0, 1, 0, 1, 0, 0],
     [1, 1, 2, 1, 1, 1, 2, 1],
     [1, 1, 2, 1, 3, 3, 0, 3],
     [3, 3, 3, 3, 3, 3, 4, 4],
     [3, 3, 3, 3, 3, 3, 3, 3],
     [0, 3, 3, 3, 3, 4, 4, 3],
     [3, 3, 3, 3, 3, 3, 0, 3],
     [3, 3, 3, 4, 4, 3, 3, 3],
     [3, 3, 3, 3, 0, 3, 3, 3],
     [3, 4, 4, 3, 3, 3, 3, 3],
     [3, 3, 0, 3, 3, 3, 3, 4],
     [4, 3, 3, 3, 3, 3, 3, 3],
     [0, 3, 3, 3, 3, 4, 4, 3],
     [3, 3, 0, 3, 3, 3, 3, 0],
     [3, 3, 3, 3, 4, 4, 3, 3],
     [3, 4, 5, 4, 5, 4, 5, 4],
     [6, 5, 5, 5, 4, 4, 4, 4],
     [4, 5, 5, 5, 5, 5, 4, 5],
     [4, 5, 4, 4, 4, 5, 5, 4],
     [4, 5, 5, 4, 4, 5, 5, 4],
     [4, 5, 5, 5, 4, 4, 3, 3],
     [4, 3, 3, 4, 4, 4, 5, 5],
     [8, 5, 8, 4, 4, 4, 4, 4],
     [5, 5, 8, 5, 8, 4, 4, 4],
     [4, 4, 4, 4, 4, 4, 5, 5],
     [8, 5, 8, 5, 5, 5, 5, 5],
     [5, 5, 5, 5, 5, 5, 5, 5],
     [5, 5, 1, 1, 1, 1, 2, 2],
     [2, 1, 3, 3, 3, 3, 3, 3],
     [3, 3, 4, 4, 3, 3, 4, 4],
     [3, 3, 4, 4, 3, 3, 4, 4],
     [3, 3, 3, 3, 0, 3, 3, 3],
     [3, 0, 3, 3, 3, 3, 0, 3],
     [3, 3, 3, 0, 3, 3, 3, 3],
     [0, 3, 3, 3, 3, 0, 3, 3],
     [1, 0, 1, 0, 1, 0, 0, 1],
     [1, 2, 1, 1, 1, 2, 1, 1],
     [1, 2, 1, 3, 3, 0, 3, 3],
     [3, 3, 3, 3, 3, 4, 4, 3],
     [3, 3, 3, 3, 3, 3, 3, 0],
     [3, 3, 3, 3, 4, 4, 3, 3],
     [3, 3, 3, 3, 3, 0, 3, 3],
     [3, 3, 4, 4, 3, 3, 3, 3],
     [3, 3, 3, 0, 3, 3, 3, 3],
     [4, 4, 3, 3, 3, 3, 3, 3],
     [3, 0, 3, 3, 3, 3, 4, 4],
     [3, 3, 3, 3, 3, 3, 3, 0],
     [3, 3, 3, 3, 4, 4, 3, 3],
     [3, 0, 3, 3, 3, 3, 0, 3],
     [3, 3, 3, 4, 4, 3, 3, 3],
     [4, 4, 4, 4, 4, 4, 4, 5],
     [4, 4, 4, 4, 4, 4, 4, 4],
     [5, 5, 5, 5, 3, 3, 3, 3],
     [3, 3, 3, 3, 3, 3, 3, 3],
     [3, 3, 3, 3, 4, 4, 3, 3],
     [3, 3, 3, 3, 3, 3, 3, 3],
     [3, 3, 3, 3, 3, 4, 4, 8],
     [8, 3, 3, 3, 3, 3, 4, 4],
     [8, 8, 3, 3, 3, 3, 3, 3],
     [3, 3, 3, 4, 4, 8, 8, 4],
     [4, 4, 4, 4, 4, 4, 4, 4],
     [4, 4, 4, 4, 4, 4, 4, 4],
     [4, 4, 4, 4, 4, 4, 5, 5],
     [4, 4, 5, 5, 4, 4, 5, 5],
     [4, 4, 5, 5, 0, 3, 11, 11],
     [11, 12, 11, 10, 10, 12, 10, 10],
     [10, 10, 10, 10, 10, 9, 10, 9],
     [9, 8, 8, 8, 6, 11, 0, 5],
     [11, 10, 6, 0, 5, 6, 11, 0],
     [5, 11, 10, 8, 1, 1, 1, 1],
     [1, 0, 5, 6, 9, 10, 10, 10],
     [10, 7, 10, 10, 10, 10, 7, 10],
     [10, 10, 10, 7, 10, 10, 10, 10],
     [7, 10, 10, 10, 10, 7, 10, 10],
     [10, 10, 7, 10, 10, 8, 7, 8],
     [7, 8, 7, 8, 8, 9, 8, 8],
     [8, 9, 8, 8, 8, 9, 8, 10],
     [10, 7, 10, 10, 10, 10, 10, 10],
     [10, 11, 11, 10, 10, 10, 10, 10],
     [10, 10, 10, 7, 10, 10, 10, 10],
     [11, 11, 10, 10, 10, 10, 10, 10],
     [10, 7, 10, 10, 10, 10, 11, 11],
     [10, 10, 10, 10, 10, 10, 10, 7],
     [10, 10, 10, 10, 11, 11, 10, 10],
     [10, 10, 10, 10, 10, 7, 10, 10]]"

definition smp_range_lengths_6 :: "int list list" where
  "smp_range_lengths_6 =
    [[10, 10, 11, 11, 10, 10, 10, 10],
     [10, 10, 10, 7, 10, 10, 10, 10],
     [11, 11, 10, 10, 10, 7, 10, 10],
     [10, 10, 7, 10, 10, 10, 10, 11],
     [11, 10, 10, 10, 10, 10, 10, 10],
     [10, 10, 7, 7, 7, 7, 8, 8],
     [8, 7, 10, 10, 10, 10, 10, 9],
     [9, 9, 10, 10, 10, 10, 11, 11],
     [10, 10, 11, 11, 10, 10, 11, 11],
     [10, 10, 10, 10, 7, 10, 10, 10],
     [10, 7, 10, 10, 10, 10, 7, 10],
     [10, 10, 10, 7, 10, 10, 10, 10],
     [7, 10, 10, 10, 10, 7, 10, 10],
     [8, 7, 8, 7, 8, 7, 6, 8],
     [8, 9, 8, 8, 8, 9, 8, 8],
     [8, 9, 8, 10, 10, 7, 10, 10],
     [10, 10, 10, 10, 10, 11, 11, 10],
     [10, 10, 10, 10, 10, 10, 10, 7],
     [10, 10, 10, 10, 11, 11, 10, 10],
     [10, 10, 10, 10, 10, 7, 10, 10],
     [10, 10, 11, 11, 10, 10, 10, 10],
     [10, 10, 10, 7, 10, 10, 10, 10],
     [11, 11, 10, 10, 10, 10, 10, 10],
     [10, 7, 10, 10, 10, 10, 11, 11],
     [10, 10, 10, 10, 10, 10, 10, 7],
     [10, 10, 10, 10, 11, 11, 10, 10],
     [10, 7, 10, 10, 10, 10, 7, 10],
     [10, 10, 10, 11, 11, 10, 10, 10],
     [11, 12, 11, 12, 10, 12, 10, 13],
     [12, 12, 12, 10, 10, 10, 10, 10],
     [11, 11, 11, 11, 12, 11, 12, 11],
     [12, 10, 10, 10, 11, 11, 11, 11],
     [12, 12, 11, 11, 12, 12, 11, 11],
     [12, 12, 11, 11, 11, 10, 10, 11],
     [10, 10, 11, 11, 10, 12, 12, 15],
     [12, 15, 11, 10, 11, 11, 10, 12],
     [12, 15, 12, 15, 11, 11, 11, 11],
     [11, 11, 11, 11, 10, 12, 12, 15],
     [12, 15, 12, 12, 12, 12, 12, 12],
     [12, 12, 12, 12, 12, 12, 12, 12],
     [12, 8, 8, 8, 8, 9, 9, 9],
     [8, 10, 10, 10, 10, 10, 10, 10],
     [10, 11, 11, 10, 10, 11, 11, 10],
     [10, 11, 11, 10, 10, 11, 11, 10],
     [10, 10, 10, 7, 10, 10, 10, 10],
     [7, 10, 10, 10, 10, 7, 10, 10],
     [10, 10, 7, 10, 10, 10, 10, 7],
     [10, 10, 10, 10, 7, 10, 10, 8],
     [7, 8, 7, 8, 7, 7, 8, 8],
     [9, 8, 8, 8, 9, 8, 8, 8],
     [9, 8, 10, 10, 7, 10, 10, 10],
     [10, 10, 10, 10, 11, 11, 10, 10],
     [10, 10, 10, 10, 10, 10, 7, 10],
     [10, 10, 10, 11, 11, 10, 10, 10],
     [10, 10, 10, 10, 7, 10, 10, 10],
     [10, 11, 11, 10, 10, 10, 10, 10],
     [10, 10, 7, 10, 10, 10, 10, 11],
     [11, 10, 10, 10, 10, 10, 10, 10],
     [7, 10, 10, 10, 10, 11, 11, 10],
     [10, 10, 10, 10, 10, 10, 7, 10],
     [10, 10, 10, 11, 11, 10, 10, 10],
     [7, 10, 10, 10, 10, 7, 10, 10],
     [10, 10, 11, 11, 10, 10, 10, 11],
     [11, 11, 11, 11, 11, 11, 12, 11],
     [11, 11, 11, 11, 11, 11, 11, 12],
     [12, 12, 12, 10, 9, 10, 10, 10],
     [10, 10, 10, 10, 10, 10, 10, 9],
     [9, 10, 10, 10, 10, 10, 10, 10],
     [10, 10, 10, 10, 10, 10, 10, 10],
     [10, 10, 10, 9, 11, 11, 15, 15],
     [10, 9, 10, 10, 9, 11, 11, 15],
     [15, 10, 10, 10, 10, 10, 10, 10],
     [10, 9, 11, 11, 15, 15, 11, 11],
     [11, 11, 11, 11, 11, 11, 11, 11],
     [11, 11, 11, 11, 11, 11, 11, 11],
     [11, 11, 11, 11, 11, 12, 12, 11],
     [11, 12, 12, 11, 11, 12, 12, 11],
     [11, 12, 12, 7, 5, 5, 4, 5],
     [5, 5, 5, 5, 5, 5, 5, 5],
     [0, 1, 0, 0, 1, 1, 10, 0],
     [0, 10, 5, 5, 5, 5, 5, 5],
     [5, 5, 5, 5, 5, 5, 5, 5],
     [5, 5, 5, 5, 5, 5, 5, 5],
     [5, 5, 5, 5, 5, 5, 5, 5],
     [5, 5, 5, 5, 5, 5, 5, 5],
     [5, 5, 5, 5, 5, 5, 5, 5],
     [5, 5, 5, 5, 5, 5, 5, 5],
     [5, 5, 5, 5, 5, 5, 5, 5],
     [5, 5, 5, 5, 5, 5, 5, 5],
     [5, 5, 5, 5, 5, 5, 5, 5],
     [5, 5, 5, 5, 5, 5, 5, 5],
     [5, 1, 1, 1, 1, 1, 1, 1],
     [1, 0, 0, 5, 6, 0, 0, 0],
     [3, 3, 3, 3, 4, 3, 3, 3],
     [3, 3, 3, 3, 3, 3, 3, 2],
     [1, 1, 1, 0, 3, 3, 3, 1],
     [1, 1, 1, 2, 2, 2, 1, 3],
     [3, 3, 3, 3, 3, 3, 3, 4],
     [4, 3, 3, 4, 4, 3, 3, 4],
     [4, 3, 3, 4, 4, 3, 3, 3],
     [3, 0, 3, 3, 3, 3, 0, 3],
     [3, 3, 3, 0, 3, 3, 3, 3],
     [0, 3, 3, 3, 3, 0, 3, 3],
     [3, 3, 0, 3, 3, 1, 0, 1],
     [0, 1, 0, 0, 1, 1, 2, 1],
     [1, 1, 2, 1, 1, 1, 2, 1],
     [3, 3, 0, 3, 3, 3, 3, 3],
     [3, 3, 4, 4, 3, 3, 3, 3],
     [3, 3, 3, 3, 0, 3, 3, 3],
     [3, 4, 4, 3, 3, 3, 3, 3],
     [3, 3, 0, 3, 3, 3, 3, 4],
     [4, 3, 3, 3, 3, 3, 3, 3],
     [0, 3, 3, 3, 3, 4, 4, 3],
     [3, 3, 3, 3, 3, 3, 0, 3],
     [3, 3, 3, 4, 4, 3, 3, 3],
     [3, 3, 3, 3, 0, 3, 3, 3],
     [3, 4, 4, 3, 3, 3, 0, 3],
     [3, 3, 3, 0, 3, 3, 3, 3],
     [4, 4, 3, 3, 3, 3, 3, 4],
     [3, 3, 3, 3, 3, 3, 3, 3],
     [3, 4, 3, 3, 3, 3, 3, 3],
     [3, 3, 3, 3, 2, 1, 1, 1],
     [0, 1, 1, 1, 1, 2, 2, 2],
     [1, 3, 3, 3, 3, 3, 3, 3],
     [3, 4, 4, 3, 3, 4, 4, 3],
     [3, 4, 4, 3, 3, 4, 4, 3],
     [3, 3, 3, 0, 3, 3, 3, 3],
     [0, 3, 3, 3, 3, 0, 3, 3],
     [3, 3, 0, 3, 3, 3, 3, 0],
     [3, 3, 3, 3, 0, 3, 3, 1],
     [0, 1, 0, 1, 0, 0, 1, 1],
     [2, 1, 1, 1, 2, 1, 1, 1],
     [2, 1, 3, 3, 0, 3, 3, 3],
     [3, 3, 3, 3, 4, 4, 3, 3],
     [3, 3, 3, 3, 3, 3, 0, 3],
     [3, 3, 3, 4, 4, 3, 3, 3],
     [3, 3, 3, 3, 0, 3, 3, 3],
     [3, 4, 4, 3, 3, 3, 3, 3],
     [3, 3, 0, 3, 3, 3, 3, 4],
     [4, 3, 3, 3, 3, 3, 3, 3],
     [0, 3, 3, 3, 3, 4, 4, 3],
     [3, 3, 3, 3, 3, 3, 0, 3],
     [3, 3, 3, 4, 4, 3, 3, 3],
     [0, 3, 3, 3, 3, 0, 3, 3],
     [3, 3, 4, 4, 3, 3, 3, 3],
     [3, 4, 3, 3, 3, 4, 4, 4],
     [4, 3, 3, 3, 4, 3, 3, 3],
     [3, 3, 3, 3, 3, 3, 3, 2],
     [1, 1, 1, 0, 4, 4, 3, 3],
     [4, 4, 3, 3, 4, 4, 3, 3]]"

definition smp_range_lengths_7 :: "int list list" where
  "smp_range_lengths_7 =
    [[4, 3, 3, 4, 4, 4, 5, 5],
     [8, 5, 8, 4, 4, 4, 4, 4],
     [5, 5, 8, 5, 8, 4, 4, 4],
     [4, 4, 4, 4, 4, 4, 5, 5],
     [8, 5, 8, 5, 5, 5, 5, 5],
     [5, 5, 5, 5, 5, 5, 5, 5],
     [5, 5, 1, 1, 1, 1, 2, 2],
     [2, 1, 3, 3, 3, 3, 3, 3],
     [3, 3, 4, 4, 3, 3, 4, 4],
     [3, 3, 4, 4, 3, 3, 4, 4],
     [3, 3, 3, 3, 0, 3, 3, 3],
     [3, 0, 3, 3, 3, 3, 0, 3],
     [3, 3, 3, 0, 3, 3, 3, 3],
     [0, 3, 3, 3, 3, 0, 3, 3],
     [1, 0, 1, 0, 1, 0, 0, 1],
     [1, 2, 1, 1, 1, 2, 1, 1],
     [1, 2, 1, 3, 3, 0, 3, 3],
     [3, 3, 3, 3, 3, 4, 4, 3],
     [3, 3, 3, 3, 3, 3, 3, 0],
     [3, 3, 3, 3, 4, 4, 3, 3],
     [3, 3, 3, 3, 3, 0, 3, 3],
     [3, 3, 4, 4, 3, 3, 3, 3],
     [3, 3, 3, 0, 3, 3, 3, 3],
     [4, 4, 3, 3, 3, 3, 3, 3],
     [3, 0, 3, 3, 3, 3, 4, 4],
     [3, 3, 3, 3, 3, 3, 3, 0],
     [3, 3, 3, 3, 4, 4, 3, 3],
     [3, 0, 3, 3, 3, 3, 0, 3],
     [3, 3, 3, 4, 4, 3, 3, 3],
     [4, 4, 4, 4, 4, 4, 4, 5],
     [4, 4, 4, 4, 4, 4, 4, 4],
     [5, 5, 5, 5, 3, 3, 3, 3],
     [3, 3, 3, 3, 3, 3, 3, 3],
     [3, 3, 3, 3, 4, 4, 3, 3],
     [3, 3, 3, 3, 3, 3, 3, 3],
     [3, 3, 3, 3, 3, 4, 4, 8],
     [8, 3, 3, 3, 3, 3, 4, 4],
     [8, 8, 3, 3, 3, 3, 3, 3],
     [3, 3, 3, 4, 4, 8, 8, 4],
     [4, 4, 4, 4, 4, 4, 4, 4],
     [4, 4, 4, 4, 4, 4, 4, 4],
     [4, 4, 4, 4, 4, 4, 5, 5],
     [4, 4, 5, 5, 4, 4, 5, 5],
     [4, 4, 5, 5, 4, 4, 4, 4],
     [5, 5, 3, 3, 4, 4, 3, 3],
     [3, 3, 3, 3, 3, 3, 3, 3],
     [3, 3, 3, 3, 3, 5, 7, 6],
     [4, 5, 5, 4, 5, 5, 5, 3],
     [3, 5, 5, 5, 5, 5, 5, 5],
     [5, 5, 5, 5, 5, 5, 5, 5],
     [4, 1, 1, 1, 1, 1, 1, 1],
     [0, 0, 0, 0, 0, 5, 5, 5],
     [5, 5, 5, 5, 5, 5, 5, 5],
     [5, 5, 5, 5, 5, 5, 5, 5],
     [5, 5, 5, 5, 5, 5, 5, 5],
     [5, 5, 5, 5, 5, 5, 5, 5],
     [5, 5, 5, 5, 5, 5, 5, 5],
     [5, 5, 5, 5, 5, 5, 5, 5],
     [5, 5, 5, 5, 5, 5, 5, 5],
     [5, 5, 5, 5, 5, 5, 5, 5],
     [5, 5, 5, 5, 5, 5, 5, 0]]"

definition smp_index_offsets_1 :: "int list list" where
  "smp_index_offsets_1 =
    [[0, 0, 25, 27, 52, 54, 65, 72],
     [79, 94, 99, 102, 105, 108, 110, 112],
     [115, 117, 120, 122, 155, 157, 170, 174],
     [185, 195, 197, 199, 201, 203, 205, 207],
     [242, 261, 276, 291, 305, 320, 335, 348],
     [352, 365, 367, 370, 382, 393, 403, 414],
     [429, 444, 461, 476, 491, 504, 508, 532],
     [534, 569, 593, 595, 630, 642, 654, 666],
     [678, 691, 716, 737, 750, 763, 783, 796],
     [809, 826, 842, 857, 873, 886, 906, 921],
     [938, 952, 964, 976, 987, 1000, 1025, 1049],
     [1062, 1075, 1099, 1122, 1135, 1148, 1161, 1174],
     [1176, 1211, 1224, 1248, 1250, 1285, 1309, 1330],
     [1351, 1353, 1388, 1409, 1424, 1428, 1448, 1450],
     [1453, 1473, 1475, 1478, 1482, 1489, 1496, 1510],
     [1522, 1533, 1537, 1541, 1552, 1556, 1560, 1568],
     [1575, 1581, 1588, 1592, 1602, 1608, 1615, 1620],
     [1623, 1626, 1628, 1631, 1636, 1638, 1673, 1678],
     [1680, 1715, 1719, 1734, 1736, 1739, 1753, 1768],
     [1774, 1776, 1779, 1784, 1799, 1801, 1804, 1818],
     [1832, 1837, 1839, 1842, 1853, 1855, 1857, 1859],
     [1861, 1863, 1865, 1868, 1873, 1877, 1882, 1887],
     [1892, 1897, 1899, 1904, 1909, 1914, 1919, 1921],
     [1926, 1931, 1936, 1941, 1943, 1948, 1953, 1958],
     [1963, 1965, 1970, 1975, 1980, 1985, 1987, 1992],
     [1997, 2002, 2007, 2009, 2017, 2023, 2028, 2030],
     [2035, 2037, 2042, 2044, 2047, 2050, 2055, 2058],
     [2061, 2064, 2069, 2072, 2075, 2078, 2083, 2086],
     [2091, 2096, 2098, 2103, 2108, 2113, 2118, 2124],
     [2130, 2136, 2144, 2151, 2157, 2163, 2168, 2173],
     [2181, 2188, 2194, 2200, 2203, 2207, 2214, 2221],
     [2228, 2237, 2245, 2252, 2259, 2265, 2273, 2280],
     [2286, 2292, 2295, 2302, 2309, 2316, 2323, 2332],
     [2340, 2347, 2354, 2360, 2368, 2375, 2381, 2387],
     [2390, 2397, 2404, 2411, 2418, 2427, 2435, 2442],
     [2449, 2455, 2463, 2470, 2476, 2482, 2485, 2492],
     [2499, 2506, 2513, 2522, 2530, 2537, 2544, 2550],
     [2558, 2565, 2571, 2577, 2580, 2587, 2594, 2601],
     [2608, 2617, 2625, 2632, 2639, 2645, 2647, 2655],
     [2662, 2668, 2674, 2677, 2684, 2691, 2698, 2705],
     [2714, 2722, 2729, 2736, 2742, 2744, 2779, 2792],
     [2796, 2809, 2811, 2846, 2859, 2872, 2877, 2879],
     [2882, 2886, 2899, 2901, 2904, 2916, 2918, 2953],
     [2966, 2970, 2975, 2977, 2980, 2984, 2987, 2990],
     [2993, 2996, 2999, 3002, 3005, 3008, 3010, 3025],
     [3040, 3054, 3069, 3084, 3099, 3114, 3129, 3144],
     [3159, 3174, 3187, 3191, 3196, 3198, 3201, 3205],
     [3208, 3211, 3214, 3216, 3231, 3246, 3261, 3276],
     [3290, 3305, 3320, 3335, 3350, 3365, 3380, 3395],
     [3408, 3412, 3425, 3427, 3430, 3442, 3455, 3460],
     [3462, 3465, 3469, 3482, 3484, 3487, 3499, 3501],
     [3536, 3553, 3568, 3583, 3598, 3613, 3628, 3641],
     [3645, 3658, 3660, 3663, 3675, 3688, 3693, 3695],
     [3698, 3702, 3715, 3717, 3720, 3732, 3734, 3769],
     [3784, 3799, 3814, 3829, 3844, 3859, 3874, 3889],
     [3904, 3908, 3928, 3930, 3933, 3953, 3955, 3958],
     [3962, 3969, 3976, 3990, 4002, 4013, 4017, 4021],
     [4032, 4036, 4040, 4048, 4055, 4061, 4068, 4072],
     [4082, 4088, 4095, 4100, 4103, 4106, 4108, 4111],
     [4116, 4118, 4153, 4158, 4160, 4195, 4199, 4214],
     [4216, 4219, 4233, 4248, 4254, 4256, 4259, 4264],
     [4279, 4281, 4284, 4298, 4312, 4317, 4319, 4322],
     [4333, 4335, 4337, 4339, 4341, 4343, 4345, 4348],
     [4353, 4357, 4362, 4367, 4372, 4377, 4379, 4384],
     [4389, 4394, 4399, 4401, 4406, 4411, 4416, 4421],
     [4423, 4428, 4433, 4438, 4443, 4445, 4450, 4455],
     [4460, 4465, 4467, 4472, 4477, 4482, 4487, 4489],
     [4497, 4503, 4508, 4510, 4515, 4517, 4522, 4524],
     [4527, 4530, 4535, 4538, 4541, 4544, 4549, 4552],
     [4555, 4558, 4563, 4566, 4571, 4576, 4578, 4583],
     [4588, 4593, 4598, 4604, 4610, 4616, 4624, 4631],
     [4637, 4643, 4648, 4653, 4661, 4668, 4674, 4680],
     [4683, 4687, 4694, 4701, 4708, 4717, 4725, 4732],
     [4739, 4745, 4753, 4760, 4766, 4772, 4775, 4782],
     [4789, 4796, 4803, 4812, 4820, 4827, 4834, 4840],
     [4848, 4855, 4861, 4867, 4870, 4877, 4884, 4891],
     [4898, 4907, 4915, 4922, 4929, 4935, 4943, 4950],
     [4956, 4962, 4965, 4972, 4979, 4986, 4993, 5002],
     [5010, 5017, 5024, 5030, 5038, 5045, 5051, 5057],
     [5060, 5067, 5074, 5081, 5088, 5097, 5105, 5112],
     [5119, 5125, 5127, 5135, 5142, 5148, 5154, 5157],
     [5164, 5171, 5178, 5185, 5194, 5202, 5209, 5216],
     [5222, 5224, 5259, 5274, 5278, 5291, 5293, 5296],
     [5308, 5321, 5326, 5328, 5331, 5335, 5348, 5350],
     [5353, 5365, 5378, 5383, 5385, 5388, 5392, 5405],
     [5407, 5410, 5422, 5435, 5446, 5448, 5451, 5461],
     [5468, 5474, 5481, 5485, 5498, 5505, 5507, 5510],
     [5516, 5529, 5531, 5534, 5546, 5554, 5556, 5559],
     [5566, 5569, 5572, 5574, 5580, 5586, 5588, 5591],
     [5596, 5615, 5617, 5620, 5638, 5653, 5660, 5662],
     [5665, 5671, 5686, 5688, 5691, 5705, 5719, 5721],
     [5756, 5767, 5769, 5771, 5773, 5775, 5777, 5779],
     [5782, 5788, 5792, 5797, 5802, 5807, 5812, 5814],
     [5819, 5824, 5829, 5834, 5836, 5841, 5846, 5851],
     [5856, 5858, 5863, 5868, 5873, 5878, 5880, 5885],
     [5890, 5895, 5900, 5902, 5907, 5912, 5917, 5922],
     [5924, 5932, 5938, 5943, 5945, 5950, 5952, 5957],
     [5959, 5962, 5965, 5970, 5973, 5976, 5979, 5984],
     [5987, 5990, 5993, 5998, 6001, 6006, 6011, 6013],
     [6018, 6023, 6028, 6033, 6039, 6045, 6051, 6059],
     [6066, 6072, 6078, 6083, 6088, 6096, 6103, 6109],
     [6115, 6118, 6122, 6129, 6136, 6143, 6152, 6160],
     [6167, 6174, 6180, 6188, 6195, 6201, 6207, 6210],
     [6217, 6224, 6231, 6238, 6247, 6255, 6262, 6269],
     [6275, 6283, 6290, 6296, 6302, 6305, 6312, 6319],
     [6326, 6333, 6342, 6350, 6357, 6364, 6370, 6378],
     [6385, 6391, 6397, 6400, 6407, 6414, 6421, 6428],
     [6437, 6445, 6452, 6459, 6465, 6473, 6480, 6486],
     [6492, 6495, 6502, 6509, 6516, 6523, 6532, 6540],
     [6547, 6554, 6560, 6562, 6570, 6577, 6583, 6589],
     [6592, 6599, 6606, 6613, 6620, 6629, 6637, 6644],
     [6651, 6657, 6659, 6694, 6711, 6728, 6745, 6762],
     [6777, 6784, 6786, 6789, 6795, 6808, 6810, 6813],
     [6825, 6839, 6841, 6876, 6893, 6910, 6927, 6944],
     [6961, 6975, 6980, 6982, 6985, 6989, 7003, 7005],
     [7008, 7021, 7035, 7050, 7065, 7080, 7095, 7110],
     [7125, 7139, 7158, 7175, 7192, 7209, 7226, 7243],
     [7260, 7274, 7279, 7281, 7284, 7288, 7299, 7301],
     [7304, 7314, 7320, 7325, 7327, 7332, 7334, 7339],
     [7345, 7352, 7359, 7368, 7375, 7378, 7381, 7386],
     [7389, 7392, 7395, 7400, 7403, 7408, 7413, 7415],
     [7420, 7425, 7430, 7435, 7437, 7442, 7447, 7452],
     [7457, 7459, 7464, 7469, 7474, 7479, 7481, 7486],
     [7491, 7496, 7501, 7503, 7508, 7513, 7518, 7523],
     [7525, 7533, 7539, 7544, 7549, 7551, 7556, 7565],
     [7574, 7583, 7589, 7595, 7601, 7609, 7616, 7622],
     [7628, 7637, 7642, 7654, 7665, 7675, 7685, 7692],
     [7696, 7707, 7718, 7729, 7742, 7754, 7765, 7776],
     [7786, 7798, 7809, 7819, 7829, 7836, 7843, 7854],
     [7865, 7876, 7889, 7901, 7912, 7923, 7933, 7945],
     [7956, 7966, 7976, 7983, 7990, 8001, 8012, 8023],
     [8036, 8048, 8059, 8070, 8080, 8092, 8103, 8113],
     [8123, 8130, 8137, 8148, 8159, 8170, 8183, 8195],
     [8206, 8217, 8227, 8239, 8250, 8260, 8270, 8277],
     [8284, 8295, 8306, 8317, 8330, 8342, 8353, 8364],
     [8374, 8380, 8386, 8392, 8400, 8407, 8413, 8419],
     [8421, 8433, 8444, 8454, 8464, 8471, 8478, 8489],
     [8500, 8511, 8524, 8536, 8547, 8558, 8568, 8573],
     [8590, 8607, 8624, 8639, 8646, 8648, 8651, 8657],
     [8665, 8667, 8670, 8677, 8680, 8683, 8685, 8691],
     [8698, 8705, 8712, 8719, 8728, 8737, 8746, 8753],
     [8755, 8790, 8797, 8804, 8811, 8818, 8827, 8836],
     [8845, 8852, 8854, 8889, 8895, 8905, 8912, 8919],
     [8926, 8933, 8940, 8953, 8966, 8979, 8994, 9008],
     [9015, 9022, 9031, 9039, 9046, 9053, 9062, 9070],
     [9077, 9084, 9093, 9101, 9106, 9111, 9116, 9121],
     [9123, 9128, 9133, 9138, 9143, 9145, 9150, 9155],
     [9160, 9165, 9167, 9172, 9177, 9182, 9187, 9189],
     [9194, 9199, 9204, 9209, 9211, 9216, 9221, 9226],
     [9231, 9233, 9241, 9247, 9252, 9254, 9259, 9261]]"

definition smp_index_offsets_2 :: "int list list" where
  "smp_index_offsets_2 =
    [[9266, 9268, 9275, 9278, 9281, 9286, 9289, 9292],
     [9295, 9300, 9303, 9306, 9309, 9314, 9317, 9322],
     [9327, 9329, 9334, 9339, 9344, 9349, 9355, 9361],
     [9367, 9375, 9382, 9388, 9394, 9399, 9404, 9412],
     [9419, 9425, 9431, 9434, 9438, 9445, 9452, 9459],
     [9468, 9476, 9483, 9490, 9496, 9504, 9511, 9517],
     [9523, 9526, 9533, 9540, 9547, 9554, 9563, 9571],
     [9578, 9585, 9591, 9599, 9606, 9612, 9618, 9621],
     [9628, 9635, 9642, 9649, 9658, 9666, 9673, 9680],
     [9686, 9694, 9701, 9707, 9713, 9716, 9723, 9730],
     [9737, 9744, 9753, 9761, 9768, 9775, 9781, 9789],
     [9796, 9802, 9808, 9811, 9818, 9825, 9832, 9839],
     [9848, 9856, 9863, 9870, 9876, 9878, 9886, 9893],
     [9899, 9905, 9908, 9915, 9922, 9929, 9936, 9945],
     [9953, 9960, 9967, 9973, 9988, 10001, 10018, 10035],
     [10050, 10056, 10058, 10061, 10066, 10081, 10083, 10086],
     [10100, 10114, 10116, 10151, 10160, 10164, 10168, 10172],
     [10176, 10180, 10184, 10190, 10196, 10202, 10206, 10213],
     [10220, 10227, 10234, 10241, 10251, 10261, 10271, 10283],
     [10294, 10301, 10308, 10317, 10325, 10332, 10339, 10348],
     [10356, 10363, 10370, 10379, 10387, 10392, 10397, 10402],
     [10407, 10409, 10414, 10419, 10424, 10429, 10431, 10436],
     [10441, 10446, 10451, 10453, 10458, 10463, 10468, 10473],
     [10475, 10480, 10485, 10490, 10495, 10497, 10502, 10507],
     [10512, 10517, 10519, 10527, 10533, 10538, 10540, 10545],
     [10547, 10552, 10554, 10558, 10561, 10564, 10569, 10572],
     [10575, 10578, 10583, 10586, 10589, 10592, 10597, 10600],
     [10605, 10610, 10612, 10617, 10622, 10627, 10632, 10638],
     [10644, 10650, 10658, 10665, 10671, 10677, 10682, 10687],
     [10695, 10702, 10708, 10714, 10717, 10721, 10728, 10735],
     [10742, 10751, 10759, 10766, 10773, 10779, 10787, 10794],
     [10800, 10806, 10809, 10816, 10823, 10830, 10837, 10846],
     [10854, 10861, 10868, 10874, 10882, 10889, 10895, 10901],
     [10904, 10911, 10918, 10925, 10932, 10941, 10949, 10956],
     [10963, 10969, 10977, 10984, 10990, 10996, 10999, 11006],
     [11013, 11020, 11027, 11036, 11044, 11051, 11058, 11064],
     [11072, 11079, 11085, 11091, 11094, 11101, 11108, 11115],
     [11122, 11131, 11139, 11146, 11153, 11159, 11161, 11169],
     [11176, 11182, 11188, 11191, 11198, 11205, 11212, 11219],
     [11228, 11236, 11243, 11250, 11256, 11260, 11264, 11277],
     [11281, 11285, 11295, 11308, 11321, 11333, 11344, 11348],
     [11352, 11363, 11367, 11371, 11379, 11386, 11392, 11399],
     [11403, 11414, 11420, 11428, 11433, 11436, 11439, 11441],
     [11445, 11450, 11455, 11460, 11465, 11472, 11479, 11486],
     [11491, 11498, 11505, 11512, 11519, 11526, 11537, 11548],
     [11559, 11572, 11584, 11591, 11598, 11607, 11615, 11622],
     [11629, 11638, 11646, 11653, 11660, 11669, 11677, 11682],
     [11687, 11692, 11697, 11699, 11704, 11709, 11714, 11719],
     [11721, 11726, 11731, 11736, 11741, 11743, 11748, 11753],
     [11758, 11763, 11765, 11770, 11775, 11780, 11785, 11787],
     [11792, 11797, 11802, 11807, 11809, 11817, 11823, 11828],
     [11830, 11835, 11837, 11842, 11844, 11849, 11852, 11855],
     [11860, 11863, 11866, 11869, 11874, 11877, 11880, 11883],
     [11888, 11891, 11896, 11901, 11903, 11908, 11913, 11918],
     [11923, 11929, 11935, 11941, 11949, 11956, 11962, 11968],
     [11973, 11978, 11986, 11993, 11999, 12005, 12008, 12012],
     [12019, 12026, 12033, 12042, 12050, 12057, 12064, 12070],
     [12078, 12085, 12091, 12097, 12100, 12107, 12114, 12121],
     [12128, 12137, 12145, 12152, 12159, 12165, 12173, 12180],
     [12186, 12192, 12195, 12202, 12209, 12216, 12223, 12232],
     [12240, 12247, 12254, 12260, 12268, 12275, 12281, 12287],
     [12290, 12297, 12304, 12311, 12318, 12327, 12335, 12342],
     [12349, 12355, 12363, 12370, 12376, 12382, 12385, 12392],
     [12399, 12406, 12413, 12422, 12430, 12437, 12444, 12450],
     [12452, 12460, 12467, 12473, 12479, 12482, 12489, 12496],
     [12503, 12510, 12519, 12527, 12534, 12541, 12547, 12551],
     [12555, 12568, 12572, 12576, 12586, 12595, 12604, 12613],
     [12629, 12640, 12644, 12648, 12659, 12663, 12667, 12675],
     [12682, 12688, 12695, 12699, 12710, 12716, 12724, 12729],
     [12732, 12735, 12737, 12741, 12757, 12771, 12775, 12779],
     [12793, 12806, 12810, 12814, 12826, 12839, 12843, 12847],
     [12860, 12864, 12868, 12878, 12894, 12908, 12927, 12945],
     [12961, 12974, 12990, 13008, 13022, 13038, 13054, 13068],
     [13087, 13105, 13121, 13134, 13150, 13166, 13182, 13198],
     [13214, 13230, 13246, 13262, 13278, 13292, 13319, 13337],
     [13353, 13366, 13382, 13402, 13422, 13442, 13460, 13482],
     [13502, 13520, 13540, 13558, 13578, 13598, 13616, 13636],
     [13656, 13674, 13679, 13684, 13689, 13694, 13701, 13708],
     [13715, 13720, 13727, 13734, 13741, 13748, 13755, 13766],
     [13777, 13788, 13801, 13813, 13820, 13827, 13836, 13844],
     [13851, 13858, 13867, 13875, 13882, 13889, 13898, 13906],
     [13911, 13916, 13921, 13926, 13928, 13933, 13938, 13943],
     [13948, 13950, 13955, 13960, 13965, 13970, 13972, 13977],
     [13982, 13987, 13992, 13994, 13999, 14004, 14009, 14014],
     [14016, 14021, 14026, 14031, 14036, 14038, 14046, 14052],
     [14057, 14059, 14064, 14066, 14071, 14073, 14078, 14081],
     [14084, 14089, 14092, 14095, 14098, 14103, 14106, 14109],
     [14112, 14117, 14120, 14125, 14130, 14132, 14137, 14142],
     [14147, 14152, 14158, 14164, 14170, 14178, 14185, 14191],
     [14197, 14202, 14207, 14215, 14222, 14228, 14234, 14237],
     [14241, 14248, 14255, 14262, 14271, 14279, 14286, 14293],
     [14299, 14307, 14314, 14320, 14326, 14329, 14336, 14343],
     [14350, 14357, 14366, 14374, 14381, 14388, 14394, 14402],
     [14409, 14415, 14421, 14424, 14431, 14438, 14445, 14452],
     [14461, 14469, 14476, 14483, 14489, 14497, 14504, 14510],
     [14516, 14519, 14526, 14533, 14540, 14547, 14556, 14564],
     [14571, 14578, 14584, 14592, 14599, 14605, 14611, 14614],
     [14621, 14628, 14635, 14642, 14651, 14659, 14666, 14673],
     [14679, 14681, 14689, 14696, 14702, 14708, 14711, 14718],
     [14725, 14732, 14739, 14748, 14756, 14763, 14770, 14776],
     [14792, 14807, 14823, 14837, 14854, 14869, 14884, 14898],
     [14910, 14922, 14934, 14947, 14960, 14973, 14986, 14999],
     [15014, 15029, 15044, 15058, 15081, 15099, 15103, 15107],
     [15125, 15129, 15133, 15151, 15169, 15173, 15177, 15192],
     [15210, 15228, 15232, 15236, 15253, 15270, 15274, 15278],
     [15295, 15299, 15303, 15321, 15325, 15329, 15346, 15364],
     [15368, 15372, 15389, 15409, 15427, 15448, 15469, 15485],
     [15501, 15523, 15541, 15561, 15581, 15599, 15620, 15641],
     [15657, 15673, 15693, 15713, 15733, 15753, 15773, 15793],
     [15813, 15833, 15851, 15880, 15901, 15917, 15933, 15956],
     [15979, 16002, 16023, 16048, 16071, 16092, 16115, 16136],
     [16159, 16182, 16203, 16226, 16249, 16270, 16287, 16303],
     [16320, 16336, 16353, 16370, 16387, 16404, 16423, 16441],
     [16457, 16473, 16491, 16508, 16524, 16540, 16558, 16575],
     [16591, 16607, 16625, 16642, 16649, 16658, 16667, 16674],
     [16683, 16692, 16699, 16707, 16717, 16729, 16733, 16737],
     [16747, 16757, 16767, 16777, 16785, 16795, 16805, 16815],
     [16825, 16835, 16845, 16855, 16863, 16877, 16894, 16910],
     [16927, 16943, 16958, 16975, 16991, 17006, 17014, 17018],
     [17024, 17038, 17052, 17054, 17057, 17070, 17081, 17083],
     [17085, 17087, 17089, 17091, 17093, 17096, 17101, 17106],
     [17110, 17127, 17146, 17163, 17175, 17179, 17183, 17195],
     [17199, 17203, 17211, 17218, 17224, 17231, 17235, 17247],
     [17253, 17262, 17267, 17270, 17273, 17275, 17280, 17286],
     [17292, 17298, 17304, 17312, 17320, 17328, 17334, 17341],
     [17348, 17355, 17362, 17369, 17381, 17393, 17405, 17419],
     [17432, 17439, 17446, 17455, 17463, 17470, 17477, 17486],
     [17494, 17501, 17508, 17517, 17525, 17530, 17535, 17540],
     [17545, 17547, 17552, 17557, 17562, 17567, 17569, 17574],
     [17579, 17584, 17589, 17591, 17596, 17601, 17606, 17611],
     [17613, 17618, 17623, 17628, 17633, 17635, 17640, 17645],
     [17650, 17655, 17657, 17665, 17671, 17676, 17678, 17683],
     [17685, 17690, 17692, 17698, 17701, 17704, 17709, 17712],
     [17715, 17718, 17723, 17726, 17729, 17732, 17737, 17740],
     [17745, 17750, 17752, 17757, 17762, 17767, 17772, 17778],
     [17784, 17790, 17798, 17805, 17811, 17817, 17822, 17827],
     [17835, 17842, 17848, 17854, 17857, 17861, 17868, 17875],
     [17882, 17891, 17899, 17906, 17913, 17919, 17927, 17934],
     [17940, 17946, 17949, 17956, 17963, 17970, 17977, 17986],
     [17994, 18001, 18008, 18014, 18022, 18029, 18035, 18041],
     [18044, 18051, 18058, 18065, 18072, 18081, 18089, 18096],
     [18103, 18109, 18117, 18124, 18130, 18136, 18139, 18146],
     [18153, 18160, 18167, 18176, 18184, 18191, 18198, 18204],
     [18212, 18219, 18225, 18231, 18234, 18241, 18248, 18255],
     [18262, 18271, 18279, 18286, 18293, 18299, 18301, 18309],
     [18316, 18322, 18328, 18331, 18338, 18345, 18352, 18359],
     [18368, 18376, 18383, 18390, 18396, 18400, 18404, 18421],
     [18425, 18429, 18443, 18447, 18451, 18466, 18484, 18502],
     [18519, 18531, 18535, 18539, 18551, 18555, 18559, 18567],
     [18574, 18580, 18587, 18591, 18604, 18610, 18620, 18625]]"

definition smp_index_offsets_3 :: "int list list" where
  "smp_index_offsets_3 =
    [[18628, 18631, 18633, 18639, 18646, 18653, 18660, 18667],
     [18676, 18685, 18694, 18701, 18708, 18715, 18722, 18729],
     [18736, 18749, 18762, 18775, 18790, 18804, 18811, 18818],
     [18827, 18835, 18842, 18849, 18858, 18866, 18873, 18880],
     [18889, 18897, 18902, 18907, 18912, 18917, 18919, 18924],
     [18929, 18934, 18939, 18941, 18946, 18951, 18956, 18961],
     [18963, 18968, 18973, 18978, 18983, 18985, 18990, 18995],
     [19000, 19005, 19007, 19012, 19017, 19022, 19027, 19029],
     [19037, 19043, 19048, 19050, 19055, 19057, 19062, 19064],
     [19071, 19074, 19077, 19082, 19085, 19088, 19091, 19096],
     [19099, 19102, 19105, 19110, 19113, 19118, 19123, 19125],
     [19130, 19135, 19140, 19145, 19151, 19157, 19163, 19171],
     [19178, 19184, 19190, 19195, 19200, 19208, 19215, 19221],
     [19227, 19230, 19234, 19241, 19248, 19255, 19264, 19272],
     [19279, 19286, 19292, 19300, 19307, 19313, 19319, 19322],
     [19329, 19336, 19343, 19350, 19359, 19367, 19374, 19381],
     [19387, 19395, 19402, 19408, 19414, 19417, 19424, 19431],
     [19438, 19445, 19454, 19462, 19469, 19476, 19482, 19490],
     [19497, 19503, 19509, 19512, 19519, 19526, 19533, 19540],
     [19549, 19557, 19564, 19571, 19577, 19585, 19592, 19598],
     [19604, 19607, 19614, 19621, 19628, 19635, 19644, 19652],
     [19659, 19666, 19672, 19674, 19682, 19689, 19695, 19701],
     [19704, 19711, 19718, 19725, 19732, 19741, 19749, 19756],
     [19763, 19769, 19773, 19777, 19794, 19798, 19802, 19817],
     [19836, 19855, 19874, 19889, 19901, 19905, 19909, 19921],
     [19925, 19929, 19937, 19944, 19950, 19957, 19961, 19973],
     [19979, 19988, 19993, 19996, 19999, 20001, 20006, 20012],
     [20018, 20024, 20030, 20038, 20046, 20054, 20060, 20067],
     [20074, 20081, 20088, 20095, 20107, 20119, 20131, 20145],
     [20158, 20165, 20172, 20181, 20189, 20196, 20203, 20212],
     [20220, 20227, 20234, 20243, 20251, 20256, 20261, 20266],
     [20271, 20273, 20278, 20283, 20288, 20293, 20295, 20300],
     [20305, 20310, 20315, 20317, 20322, 20327, 20332, 20337],
     [20339, 20344, 20349, 20354, 20359, 20361, 20366, 20371],
     [20376, 20381, 20383, 20391, 20397, 20402, 20404, 20409],
     [20411, 20416, 20418, 20424, 20427, 20430, 20435, 20438],
     [20441, 20444, 20449, 20452, 20455, 20458, 20463, 20466],
     [20471, 20476, 20478, 20483, 20488, 20493, 20498, 20504],
     [20510, 20516, 20524, 20531, 20537, 20543, 20548, 20553],
     [20561, 20568, 20574, 20580, 20583, 20587, 20594, 20601],
     [20608, 20617, 20625, 20632, 20639, 20645, 20653, 20660],
     [20666, 20672, 20675, 20682, 20689, 20696, 20703, 20712],
     [20720, 20727, 20734, 20740, 20748, 20755, 20761, 20767],
     [20770, 20777, 20784, 20791, 20798, 20807, 20815, 20822],
     [20829, 20835, 20843, 20850, 20856, 20862, 20865, 20872],
     [20879, 20886, 20893, 20902, 20910, 20917, 20924, 20930],
     [20938, 20945, 20951, 20957, 20960, 20967, 20974, 20981],
     [20988, 20997, 21005, 21012, 21019, 21025, 21027, 21035],
     [21042, 21048, 21054, 21057, 21064, 21071, 21078, 21085],
     [21094, 21102, 21109, 21116, 21122, 21137, 21151, 21166],
     [21179, 21198, 21212, 21229, 21244, 21257, 21270, 21283],
     [21299, 21315, 21331, 21347, 21363, 21381, 21399, 21417],
     [21434, 21450, 21465, 21481, 21496, 21512, 21531, 21550],
     [21569, 21590, 21610, 21625, 21640, 21657, 21673, 21688],
     [21703, 21720, 21736, 21751, 21766, 21783, 21799, 21816],
     [21835, 21854, 21871, 21880, 21891, 21899, 21903, 21911],
     [21924, 21939, 21954, 21969, 21982, 21986, 22001, 22003],
     [22006, 22021, 22023, 22026, 22030, 22033, 22036, 22039],
     [22043, 22059, 22070, 22074, 22078, 22089, 22093, 22097],
     [22105, 22112, 22118, 22125, 22129, 22140, 22146, 22154],
     [22159, 22162, 22165, 22167, 22171, 22187, 22201, 22205],
     [22209, 22223, 22236, 22240, 22244, 22250, 22256, 22258],
     [22261, 22266, 22281, 22283, 22286, 22301, 22315, 22329],
     [22331, 22334, 22347, 22358, 22360, 22362, 22364, 22366],
     [22368, 22370, 22373, 22378, 22383, 22387, 22400, 22402],
     [22405, 22417, 22432, 22439, 22441, 22444, 22450, 22465],
     [22467, 22470, 22484, 22498, 22500, 22535, 22546, 22548],
     [22550, 22552, 22554, 22556, 22558, 22561, 22565, 22570],
     [22575, 22580, 22585, 22587, 22592, 22597, 22602, 22607],
     [22609, 22614, 22619, 22624, 22629, 22631, 22636, 22641],
     [22646, 22651, 22653, 22658, 22663, 22668, 22673, 22675],
     [22680, 22685, 22690, 22695, 22697, 22705, 22711, 22716],
     [22718, 22723, 22725, 22730, 22732, 22735, 22738, 22743],
     [22746, 22749, 22752, 22757, 22760, 22763, 22766, 22771],
     [22774, 22779, 22784, 22786, 22791, 22796, 22801, 22806],
     [22812, 22818, 22824, 22832, 22839, 22845, 22851, 22856],
     [22861, 22869, 22876, 22882, 22888, 22891, 22895, 22902],
     [22909, 22916, 22925, 22933, 22940, 22947, 22953, 22961],
     [22968, 22974, 22980, 22983, 22990, 22997, 23004, 23011],
     [23020, 23028, 23035, 23042, 23048, 23056, 23063, 23069],
     [23075, 23078, 23085, 23092, 23099, 23106, 23115, 23123],
     [23130, 23137, 23143, 23151, 23158, 23164, 23170, 23173],
     [23180, 23187, 23194, 23201, 23210, 23218, 23225, 23232],
     [23238, 23246, 23253, 23259, 23265, 23268, 23275, 23282],
     [23289, 23296, 23305, 23313, 23320, 23327, 23333, 23335],
     [23343, 23350, 23356, 23362, 23365, 23372, 23379, 23386],
     [23393, 23402, 23410, 23417, 23424, 23430, 23432, 23467],
     [23479, 23492, 23496, 23500, 23513, 23517, 23521, 23531],
     [23547, 23561, 23580, 23598, 23614, 23627, 23643, 23661],
     [23675, 23691, 23707, 23721, 23740, 23758, 23774, 23787],
     [23803, 23819, 23835, 23851, 23867, 23883, 23899, 23915],
     [23931, 23945, 23972, 23990, 24006, 24019, 24035, 24055],
     [24075, 24095, 24113, 24135, 24155, 24173, 24193, 24211],
     [24231, 24251, 24269, 24289, 24309, 24327, 24332, 24337],
     [24342, 24347, 24354, 24361, 24368, 24373, 24380, 24387],
     [24394, 24401, 24408, 24419, 24430, 24441, 24454, 24466],
     [24473, 24480, 24489, 24497, 24504, 24511, 24520, 24528],
     [24535, 24542, 24551, 24559, 24564, 24569, 24574, 24579],
     [24581, 24586, 24591, 24596, 24601, 24603, 24608, 24613],
     [24618, 24623, 24625, 24630, 24635, 24640, 24645, 24647],
     [24652, 24657, 24662, 24667, 24669, 24674, 24679, 24684],
     [24689, 24691, 24699, 24705, 24710, 24712, 24717, 24719],
     [24724, 24726, 24731, 24734, 24737, 24742, 24745, 24748],
     [24751, 24756, 24759, 24762, 24765, 24770, 24773, 24778],
     [24783, 24785, 24790, 24795, 24800, 24805, 24811, 24817],
     [24823, 24831, 24838, 24844, 24850, 24855, 24860, 24868],
     [24875, 24881, 24887, 24890, 24894, 24901, 24908, 24915],
     [24924, 24932, 24939, 24946, 24952, 24960, 24967, 24973],
     [24979, 24982, 24989, 24996, 25003, 25010, 25019, 25027],
     [25034, 25041, 25047, 25055, 25062, 25068, 25074, 25077],
     [25084, 25091, 25098, 25105, 25114, 25122, 25129, 25136],
     [25142, 25150, 25157, 25163, 25169, 25172, 25179, 25186],
     [25193, 25200, 25209, 25217, 25224, 25231, 25237, 25245],
     [25252, 25258, 25264, 25267, 25274, 25281, 25288, 25295],
     [25304, 25312, 25319, 25326, 25332, 25334, 25342, 25349],
     [25355, 25361, 25364, 25371, 25378, 25385, 25392, 25401],
     [25409, 25416, 25423, 25429, 25445, 25460, 25476, 25490],
     [25507, 25522, 25537, 25551, 25563, 25575, 25587, 25600],
     [25613, 25626, 25639, 25652, 25667, 25682, 25697, 25711],
     [25734, 25752, 25756, 25760, 25778, 25782, 25786, 25804],
     [25822, 25826, 25830, 25845, 25863, 25881, 25885, 25889],
     [25906, 25923, 25927, 25931, 25948, 25952, 25956, 25974],
     [25978, 25982, 25999, 26017, 26021, 26025, 26042, 26062],
     [26080, 26101, 26122, 26138, 26154, 26176, 26194, 26214],
     [26234, 26252, 26273, 26294, 26310, 26326, 26346, 26366],
     [26386, 26406, 26426, 26446, 26466, 26486, 26504, 26533],
     [26554, 26570, 26586, 26609, 26632, 26655, 26676, 26701],
     [26724, 26745, 26768, 26789, 26812, 26835, 26856, 26879],
     [26902, 26923, 26940, 26956, 26973, 26989, 27006, 27023],
     [27040, 27057, 27076, 27094, 27110, 27126, 27144, 27161],
     [27177, 27193, 27211, 27228, 27244, 27260, 27278, 27295],
     [27297, 27314, 27331, 27346, 27352, 27354, 27357, 27362],
     [27377, 27379, 27382, 27396, 27410, 27412, 27447, 27456],
     [27460, 27464, 27468, 27472, 27476, 27480, 27486, 27492],
     [27498, 27502, 27509, 27516, 27523, 27530, 27537, 27547],
     [27557, 27567, 27579, 27590, 27597, 27604, 27613, 27621],
     [27628, 27635, 27644, 27652, 27659, 27666, 27675, 27683],
     [27688, 27693, 27698, 27703, 27705, 27710, 27715, 27720],
     [27725, 27727, 27732, 27737, 27742, 27747, 27749, 27754],
     [27759, 27764, 27769, 27771, 27776, 27781, 27786, 27791],
     [27793, 27798, 27803, 27808, 27813, 27815, 27823, 27829],
     [27834, 27836, 27841, 27843, 27848, 27850, 27854, 27857],
     [27860, 27865, 27868, 27871, 27874, 27879, 27882, 27885],
     [27888, 27893, 27896, 27901, 27906, 27908, 27913, 27918],
     [27923, 27928, 27934, 27940, 27946, 27954, 27961, 27967],
     [27973, 27978, 27983, 27991, 27998, 28004, 28010, 28013],
     [28017, 28024, 28031, 28038, 28047, 28055, 28062, 28069],
     [28075, 28083, 28090, 28096, 28102, 28105, 28112, 28119],
     [28126, 28133, 28142, 28150, 28157, 28164, 28170, 28178],
     [28185, 28191, 28197, 28200, 28207, 28214, 28221, 28228]]"

definition smp_index_offsets_4 :: "int list list" where
  "smp_index_offsets_4 =
    [[28237, 28245, 28252, 28259, 28265, 28273, 28280, 28286],
     [28292, 28295, 28302, 28309, 28316, 28323, 28332, 28340],
     [28347, 28354, 28360, 28368, 28375, 28381, 28387, 28390],
     [28397, 28404, 28411, 28418, 28427, 28435, 28442, 28449],
     [28455, 28457, 28465, 28472, 28478, 28484, 28487, 28494],
     [28501, 28508, 28515, 28524, 28532, 28539, 28546, 28552],
     [28556, 28560, 28573, 28577, 28581, 28591, 28604, 28617],
     [28629, 28640, 28644, 28648, 28659, 28663, 28667, 28675],
     [28682, 28688, 28695, 28699, 28710, 28716, 28724, 28729],
     [28732, 28735, 28737, 28741, 28746, 28751, 28756, 28761],
     [28768, 28775, 28782, 28787, 28794, 28801, 28808, 28815],
     [28822, 28833, 28844, 28855, 28868, 28880, 28887, 28894],
     [28903, 28911, 28918, 28925, 28934, 28942, 28949, 28956],
     [28965, 28973, 28978, 28983, 28988, 28993, 28995, 29000],
     [29005, 29010, 29015, 29017, 29022, 29027, 29032, 29037],
     [29039, 29044, 29049, 29054, 29059, 29061, 29066, 29071],
     [29076, 29081, 29083, 29088, 29093, 29098, 29103, 29105],
     [29113, 29119, 29124, 29126, 29131, 29133, 29138, 29140],
     [29145, 29148, 29151, 29156, 29159, 29162, 29165, 29170],
     [29173, 29176, 29179, 29184, 29187, 29192, 29197, 29199],
     [29204, 29209, 29214, 29219, 29225, 29231, 29237, 29245],
     [29252, 29258, 29264, 29269, 29274, 29282, 29289, 29295],
     [29301, 29304, 29308, 29315, 29322, 29329, 29338, 29346],
     [29353, 29360, 29366, 29374, 29381, 29387, 29393, 29396],
     [29403, 29410, 29417, 29424, 29433, 29441, 29448, 29455],
     [29461, 29469, 29476, 29482, 29488, 29491, 29498, 29505],
     [29512, 29519, 29528, 29536, 29543, 29550, 29556, 29564],
     [29571, 29577, 29583, 29586, 29593, 29600, 29607, 29614],
     [29623, 29631, 29638, 29645, 29651, 29659, 29666, 29672],
     [29678, 29681, 29688, 29695, 29702, 29709, 29718, 29726],
     [29733, 29740, 29746, 29748, 29756, 29763, 29769, 29775],
     [29778, 29785, 29792, 29799, 29806, 29815, 29823, 29830],
     [29837, 29843, 29847, 29851, 29864, 29868, 29872, 29882],
     [29891, 29900, 29909, 29925, 29936, 29940, 29944, 29955],
     [29959, 29963, 29971, 29978, 29984, 29991, 29995, 30006],
     [30012, 30020, 30025, 30028, 30031, 30033, 30037, 30053],
     [30067, 30071, 30075, 30089, 30102, 30106, 30110, 30122],
     [30135, 30139, 30143, 30156, 30160, 30164, 30174, 30190],
     [30204, 30223, 30241, 30257, 30270, 30286, 30304, 30318],
     [30334, 30350, 30364, 30383, 30401, 30417, 30430, 30446],
     [30462, 30478, 30494, 30510, 30526, 30542, 30558, 30574],
     [30588, 30615, 30633, 30649, 30662, 30678, 30698, 30718],
     [30738, 30756, 30778, 30798, 30816, 30836, 30854, 30874],
     [30894, 30912, 30932, 30952, 30970, 30975, 30980, 30985],
     [30990, 30997, 31004, 31011, 31016, 31023, 31030, 31037],
     [31044, 31051, 31062, 31073, 31084, 31097, 31109, 31116],
     [31123, 31132, 31140, 31147, 31154, 31163, 31171, 31178],
     [31185, 31194, 31202, 31207, 31212, 31217, 31222, 31224],
     [31229, 31234, 31239, 31244, 31246, 31251, 31256, 31261],
     [31266, 31268, 31273, 31278, 31283, 31288, 31290, 31295],
     [31300, 31305, 31310, 31312, 31317, 31322, 31327, 31332],
     [31334, 31342, 31348, 31353, 31355, 31360, 31362, 31367],
     [31369, 31374, 31377, 31380, 31385, 31388, 31391, 31394],
     [31399, 31402, 31405, 31408, 31413, 31416, 31421, 31426],
     [31428, 31433, 31438, 31443, 31448, 31454, 31460, 31466],
     [31474, 31481, 31487, 31493, 31498, 31503, 31511, 31518],
     [31524, 31530, 31533, 31537, 31544, 31551, 31558, 31567],
     [31575, 31582, 31589, 31595, 31603, 31610, 31616, 31622],
     [31625, 31632, 31639, 31646, 31653, 31662, 31670, 31677],
     [31684, 31690, 31698, 31705, 31711, 31717, 31720, 31727],
     [31734, 31741, 31748, 31757, 31765, 31772, 31779, 31785],
     [31793, 31800, 31806, 31812, 31815, 31822, 31829, 31836],
     [31843, 31852, 31860, 31867, 31874, 31880, 31888, 31895],
     [31901, 31907, 31910, 31917, 31924, 31931, 31938, 31947],
     [31955, 31962, 31969, 31975, 31977, 31985, 31992, 31998],
     [32004, 32007, 32014, 32021, 32028, 32035, 32044, 32052],
     [32059, 32066, 32072, 32088, 32103, 32119, 32133, 32150],
     [32165, 32180, 32194, 32206, 32218, 32230, 32243, 32256],
     [32269, 32282, 32295, 32310, 32325, 32340, 32354, 32377],
     [32395, 32399, 32403, 32421, 32425, 32429, 32447, 32465],
     [32469, 32473, 32488, 32506, 32524, 32528, 32532, 32549],
     [32566, 32570, 32574, 32591, 32595, 32599, 32617, 32621],
     [32625, 32642, 32660, 32664, 32668, 32685, 32705, 32723],
     [32744, 32765, 32781, 32797, 32819, 32837, 32857, 32877],
     [32895, 32916, 32937, 32953, 32969, 32989, 33009, 33029],
     [33049, 33069, 33089, 33109, 33129, 33147, 33176, 33197],
     [33213, 33229, 33252, 33275, 33298, 33319, 33344, 33367],
     [33388, 33411, 33432, 33455, 33478, 33499, 33522, 33545],
     [33566, 33583, 33599, 33616, 33632, 33649, 33666, 33683],
     [33700, 33719, 33737, 33753, 33769, 33787, 33804, 33820],
     [33836, 33854, 33871, 33887, 33903, 33921, 33938, 33945],
     [33954, 33963, 33970, 33979, 33988, 33995, 34003, 34013],
     [34025, 34029, 34033, 34043, 34053, 34063, 34073, 34081],
     [34091, 34101, 34111, 34121, 34131, 34141, 34151, 34159],
     [34173, 34190, 34206, 34223, 34239, 34254, 34271, 34287],
     [34302, 34310, 34314, 34320, 34334, 34348, 34350, 34353],
     [34366, 34377, 34379, 34381, 34383, 34385, 34387, 34389],
     [34392, 34397, 34402, 34406, 34423, 34442, 34459, 34471],
     [34475, 34479, 34491, 34495, 34499, 34507, 34514, 34520],
     [34527, 34531, 34543, 34549, 34558, 34563, 34566, 34569],
     [34571, 34576, 34582, 34588, 34594, 34600, 34608, 34616],
     [34624, 34630, 34637, 34644, 34651, 34658, 34665, 34677],
     [34689, 34701, 34715, 34728, 34735, 34742, 34751, 34759],
     [34766, 34773, 34782, 34790, 34797, 34804, 34813, 34821],
     [34826, 34831, 34836, 34841, 34843, 34848, 34853, 34858],
     [34863, 34865, 34870, 34875, 34880, 34885, 34887, 34892],
     [34897, 34902, 34907, 34909, 34914, 34919, 34924, 34929],
     [34931, 34936, 34941, 34946, 34951, 34953, 34961, 34967],
     [34972, 34974, 34979, 34981, 34986, 34988, 34994, 34997],
     [35000, 35005, 35008, 35011, 35014, 35019, 35022, 35025],
     [35028, 35033, 35036, 35041, 35046, 35048, 35053, 35058],
     [35063, 35068, 35074, 35080, 35086, 35094, 35101, 35107],
     [35113, 35118, 35123, 35131, 35138, 35144, 35150, 35153],
     [35157, 35164, 35171, 35178, 35187, 35195, 35202, 35209],
     [35215, 35223, 35230, 35236, 35242, 35245, 35252, 35259],
     [35266, 35273, 35282, 35290, 35297, 35304, 35310, 35318],
     [35325, 35331, 35337, 35340, 35347, 35354, 35361, 35368],
     [35377, 35385, 35392, 35399, 35405, 35413, 35420, 35426],
     [35432, 35435, 35442, 35449, 35456, 35463, 35472, 35480],
     [35487, 35494, 35500, 35508, 35515, 35521, 35527, 35530],
     [35537, 35544, 35551, 35558, 35567, 35575, 35582, 35589],
     [35595, 35597, 35605, 35612, 35618, 35624, 35627, 35634],
     [35641, 35648, 35655, 35664, 35672, 35679, 35686, 35692],
     [35696, 35700, 35717, 35721, 35725, 35739, 35743, 35747],
     [35762, 35780, 35798, 35815, 35827, 35831, 35835, 35847],
     [35851, 35855, 35863, 35870, 35876, 35883, 35887, 35900],
     [35906, 35916, 35921, 35924, 35927, 35929, 35935, 35942],
     [35949, 35956, 35963, 35972, 35981, 35990, 35997, 36004],
     [36011, 36018, 36025, 36032, 36045, 36058, 36071, 36086],
     [36100, 36107, 36114, 36123, 36131, 36138, 36145, 36154],
     [36162, 36169, 36176, 36185, 36193, 36198, 36203, 36208],
     [36213, 36215, 36220, 36225, 36230, 36235, 36237, 36242],
     [36247, 36252, 36257, 36259, 36264, 36269, 36274, 36279],
     [36281, 36286, 36291, 36296, 36301, 36303, 36308, 36313],
     [36318, 36323, 36325, 36333, 36339, 36344, 36346, 36351],
     [36353, 36358, 36360, 36367, 36370, 36373, 36378, 36381],
     [36384, 36387, 36392, 36395, 36398, 36401, 36406, 36409],
     [36414, 36419, 36421, 36426, 36431, 36436, 36441, 36447],
     [36453, 36459, 36467, 36474, 36480, 36486, 36491, 36496],
     [36504, 36511, 36517, 36523, 36526, 36530, 36537, 36544],
     [36551, 36560, 36568, 36575, 36582, 36588, 36596, 36603],
     [36609, 36615, 36618, 36625, 36632, 36639, 36646, 36655],
     [36663, 36670, 36677, 36683, 36691, 36698, 36704, 36710],
     [36713, 36720, 36727, 36734, 36741, 36750, 36758, 36765],
     [36772, 36778, 36786, 36793, 36799, 36805, 36808, 36815],
     [36822, 36829, 36836, 36845, 36853, 36860, 36867, 36873],
     [36881, 36888, 36894, 36900, 36903, 36910, 36917, 36924],
     [36931, 36940, 36948, 36955, 36962, 36968, 36970, 36978],
     [36985, 36991, 36997, 37000, 37007, 37014, 37021, 37028],
     [37037, 37045, 37052, 37059, 37065, 37069, 37073, 37090],
     [37094, 37098, 37113, 37132, 37151, 37170, 37185, 37197],
     [37201, 37205, 37217, 37221, 37225, 37233, 37240, 37246],
     [37253, 37257, 37269, 37275, 37284, 37289, 37292, 37295],
     [37297, 37302, 37308, 37314, 37320, 37326, 37334, 37342],
     [37350, 37356, 37363, 37370, 37377, 37384, 37391, 37403],
     [37415, 37427, 37441, 37454, 37461, 37468, 37477, 37485],
     [37492, 37499, 37508, 37516, 37523, 37530, 37539, 37547],
     [37552, 37557, 37562, 37567, 37569, 37574, 37579, 37584],
     [37589, 37591, 37596, 37601, 37606, 37611, 37613, 37618],
     [37623, 37628, 37633, 37635, 37640, 37645, 37650, 37655]]"

definition smp_index_offsets_5 :: "int list list" where
  "smp_index_offsets_5 =
    [[37657, 37662, 37667, 37672, 37677, 37679, 37687, 37693],
     [37698, 37700, 37705, 37707, 37712, 37714, 37720, 37723],
     [37726, 37731, 37734, 37737, 37740, 37745, 37748, 37751],
     [37754, 37759, 37762, 37767, 37772, 37774, 37779, 37784],
     [37789, 37794, 37800, 37806, 37812, 37820, 37827, 37833],
     [37839, 37844, 37849, 37857, 37864, 37870, 37876, 37879],
     [37883, 37890, 37897, 37904, 37913, 37921, 37928, 37935],
     [37941, 37949, 37956, 37962, 37968, 37971, 37978, 37985],
     [37992, 37999, 38008, 38016, 38023, 38030, 38036, 38044],
     [38051, 38057, 38063, 38066, 38073, 38080, 38087, 38094],
     [38103, 38111, 38118, 38125, 38131, 38139, 38146, 38152],
     [38158, 38161, 38168, 38175, 38182, 38189, 38198, 38206],
     [38213, 38220, 38226, 38234, 38241, 38247, 38253, 38256],
     [38263, 38270, 38277, 38284, 38293, 38301, 38308, 38315],
     [38321, 38323, 38331, 38338, 38344, 38350, 38353, 38360],
     [38367, 38374, 38381, 38390, 38398, 38405, 38412, 38418],
     [38433, 38447, 38462, 38475, 38494, 38508, 38525, 38540],
     [38553, 38566, 38579, 38595, 38611, 38627, 38643, 38659],
     [38677, 38695, 38713, 38730, 38746, 38761, 38777, 38792],
     [38808, 38827, 38846, 38865, 38886, 38906, 38921, 38936],
     [38953, 38969, 38984, 38999, 39016, 39032, 39047, 39062],
     [39079, 39095, 39112, 39131, 39150, 39167, 39176, 39187],
     [39195, 39199, 39207, 39222, 39237, 39250, 39263, 39265],
     [39267, 39269, 39271, 39273, 39275, 39310, 39322, 39334],
     [39347, 39358, 39360, 39362, 39364, 39366, 39368, 39370],
     [39373, 39378, 39383, 39385, 39388, 39392, 39395, 39398],
     [39401, 39405, 39421, 39432, 39436, 39440, 39451, 39455],
     [39459, 39467, 39474, 39480, 39487, 39491, 39502, 39508],
     [39516, 39521, 39524, 39527, 39529, 39533, 39549, 39563],
     [39567, 39571, 39585, 39598, 39602, 39606, 39612, 39618],
     [39620, 39623, 39628, 39645, 39647, 39650, 39667, 39681],
     [39695, 39697, 39700, 39713, 39729, 39745, 39762, 39777],
     [39789, 39793, 39797, 39809, 39813, 39817, 39825, 39832],
     [39838, 39845, 39849, 39862, 39864, 39899, 39905, 39915],
     [39920, 39923, 39926, 39928, 39934, 39949, 39951, 39954],
     [39968, 39983, 39990, 39992, 39995, 40001, 40016, 40018],
     [40021, 40035, 40049, 40060, 40062, 40064, 40066, 40068],
     [40070, 40072, 40075, 40081, 40085, 40090, 40095, 40100],
     [40105, 40107, 40112, 40117, 40122, 40127, 40129, 40134],
     [40139, 40144, 40149, 40151, 40156, 40161, 40166, 40171],
     [40173, 40178, 40183, 40188, 40193, 40195, 40200, 40205],
     [40210, 40215, 40217, 40225, 40231, 40236, 40238, 40243],
     [40245, 40250, 40252, 40255, 40258, 40263, 40266, 40269],
     [40272, 40277, 40280, 40283, 40286, 40291, 40294, 40299],
     [40304, 40306, 40311, 40316, 40321, 40326, 40332, 40338],
     [40344, 40352, 40359, 40365, 40371, 40376, 40381, 40389],
     [40396, 40402, 40408, 40411, 40415, 40422, 40429, 40436],
     [40445, 40453, 40460, 40467, 40473, 40481, 40488, 40494],
     [40500, 40503, 40510, 40517, 40524, 40531, 40540, 40548],
     [40555, 40562, 40568, 40576, 40583, 40589, 40595, 40598],
     [40605, 40612, 40619, 40626, 40635, 40643, 40650, 40657],
     [40663, 40671, 40678, 40684, 40690, 40693, 40700, 40707],
     [40714, 40721, 40730, 40738, 40745, 40752, 40758, 40766],
     [40773, 40779, 40785, 40788, 40795, 40802, 40809, 40816],
     [40825, 40833, 40840, 40847, 40853, 40855, 40863, 40870],
     [40876, 40882, 40885, 40892, 40899, 40906, 40913, 40922],
     [40930, 40937, 40944, 40950, 40952, 40987, 41004, 41021],
     [41037, 41054, 41071, 41086, 41093, 41100, 41107, 41114],
     [41123, 41132, 41141, 41148, 41155, 41162, 41169, 41176],
     [41183, 41196, 41209, 41222, 41237, 41251, 41258, 41265],
     [41274, 41282, 41289, 41296, 41305, 41313, 41320, 41327],
     [41336, 41344, 41349, 41354, 41359, 41364, 41366, 41371],
     [41376, 41381, 41386, 41388, 41393, 41398, 41403, 41408],
     [41410, 41415, 41420, 41425, 41430, 41432, 41437, 41442],
     [41447, 41452, 41454, 41459, 41464, 41469, 41474, 41476],
     [41484, 41490, 41495, 41497, 41502, 41504, 41509, 41511],
     [41518, 41521, 41524, 41529, 41532, 41535, 41538, 41543],
     [41546, 41549, 41552, 41557, 41560, 41565, 41570, 41572],
     [41577, 41582, 41587, 41592, 41598, 41604, 41610, 41618],
     [41625, 41631, 41637, 41642, 41647, 41655, 41662, 41668],
     [41674, 41677, 41681, 41688, 41695, 41702, 41711, 41719],
     [41726, 41733, 41739, 41747, 41754, 41760, 41766, 41769],
     [41776, 41783, 41790, 41797, 41806, 41814, 41821, 41828],
     [41834, 41842, 41849, 41855, 41861, 41864, 41871, 41878],
     [41885, 41892, 41901, 41909, 41916, 41923, 41929, 41937],
     [41944, 41950, 41956, 41959, 41966, 41973, 41980, 41987],
     [41996, 42004, 42011, 42018, 42024, 42032, 42039, 42045],
     [42051, 42054, 42061, 42068, 42075, 42082, 42091, 42099],
     [42106, 42113, 42119, 42121, 42129, 42136, 42142, 42148],
     [42151, 42158, 42165, 42172, 42179, 42188, 42196, 42203],
     [42210, 42216, 42231, 42245, 42260, 42273, 42292, 42306],
     [42323, 42338, 42351, 42364, 42377, 42393, 42409, 42425],
     [42441, 42457, 42475, 42493, 42511, 42528, 42544, 42559],
     [42575, 42590, 42606, 42625, 42644, 42663, 42684, 42704],
     [42719, 42734, 42751, 42767, 42782, 42797, 42814, 42830],
     [42845, 42860, 42877, 42893, 42908, 42920, 42933, 42937],
     [42941, 42954, 42958, 42962, 42972, 42988, 43002, 43021],
     [43039, 43055, 43068, 43084, 43102, 43116, 43132, 43148],
     [43162, 43181, 43199, 43215, 43228, 43244, 43260, 43276],
     [43292, 43308, 43324, 43340, 43356, 43372, 43386, 43413],
     [43431, 43447, 43460, 43476, 43496, 43516, 43536, 43554],
     [43576, 43596, 43614, 43634, 43652, 43672, 43692, 43710],
     [43730, 43750, 43768, 43773, 43778, 43783, 43788, 43795],
     [43802, 43809, 43814, 43821, 43828, 43835, 43842, 43849],
     [43860, 43871, 43882, 43895, 43907, 43914, 43921, 43930],
     [43938, 43945, 43952, 43961, 43969, 43976, 43983, 43992],
     [44000, 44005, 44010, 44015, 44020, 44022, 44027, 44032],
     [44037, 44042, 44044, 44049, 44054, 44059, 44064, 44066],
     [44071, 44076, 44081, 44086, 44088, 44093, 44098, 44103],
     [44108, 44110, 44115, 44120, 44125, 44130, 44132, 44140],
     [44146, 44151, 44153, 44158, 44160, 44165, 44167, 44172],
     [44175, 44178, 44183, 44186, 44189, 44192, 44197, 44200],
     [44203, 44206, 44211, 44214, 44219, 44224, 44226, 44231],
     [44236, 44241, 44246, 44252, 44258, 44264, 44272, 44279],
     [44285, 44291, 44296, 44301, 44309, 44316, 44322, 44328],
     [44331, 44335, 44342, 44349, 44356, 44365, 44373, 44380],
     [44387, 44393, 44401, 44408, 44414, 44420, 44423, 44430],
     [44437, 44444, 44451, 44460, 44468, 44475, 44482, 44488],
     [44496, 44503, 44509, 44515, 44518, 44525, 44532, 44539],
     [44546, 44555, 44563, 44570, 44577, 44583, 44591, 44598],
     [44604, 44610, 44613, 44620, 44627, 44634, 44641, 44650],
     [44658, 44665, 44672, 44678, 44686, 44693, 44699, 44705],
     [44708, 44715, 44722, 44729, 44736, 44745, 44753, 44760],
     [44767, 44773, 44775, 44783, 44790, 44796, 44802, 44805],
     [44812, 44819, 44826, 44833, 44842, 44850, 44857, 44864],
     [44870, 44886, 44901, 44917, 44931, 44948, 44963, 44978],
     [44992, 45004, 45016, 45028, 45041, 45054, 45067, 45080],
     [45093, 45108, 45123, 45138, 45152, 45175, 45193, 45197],
     [45201, 45219, 45223, 45227, 45245, 45263, 45267, 45271],
     [45286, 45304, 45322, 45326, 45330, 45347, 45364, 45368],
     [45372, 45389, 45393, 45397, 45415, 45419, 45423, 45440],
     [45458, 45462, 45466, 45483, 45503, 45521, 45542, 45563],
     [45579, 45595, 45617, 45635, 45655, 45675, 45693, 45714],
     [45735, 45751, 45767, 45787, 45807, 45827, 45847, 45867],
     [45887, 45907, 45927, 45945, 45974, 45995, 46011, 46027],
     [46050, 46073, 46096, 46117, 46142, 46165, 46186, 46209],
     [46230, 46253, 46276, 46297, 46320, 46343, 46364, 46381],
     [46397, 46414, 46430, 46447, 46464, 46481, 46498, 46517],
     [46535, 46551, 46567, 46585, 46602, 46618, 46634, 46652],
     [46669, 46685, 46701, 46719, 46736, 46738, 46742, 46765],
     [46788, 46812, 46836, 46857, 46870, 46883, 46904, 46917],
     [46930, 46947, 46963, 46978, 46994, 47007, 47027, 47042],
     [47059, 47073, 47085, 47097, 47108, 47121, 47143, 47145],
     [47180, 47202, 47224, 47238, 47240, 47275, 47289, 47311],
     [47313, 47348, 47370, 47391, 47404, 47406, 47408, 47410],
     [47412, 47414, 47416, 47451, 47464, 47477, 47491, 47505],
     [47519, 47533, 47544, 47558, 47572, 47586, 47600, 47611],
     [47625, 47639, 47653, 47667, 47678, 47692, 47706, 47720],
     [47734, 47745, 47759, 47773, 47787, 47801, 47812, 47826],
     [47840, 47854, 47868, 47879, 47896, 47911, 47925, 47936],
     [47950, 47961, 47975, 47986, 47998, 48010, 48024, 48036],
     [48048, 48060, 48074, 48086, 48098, 48110, 48124, 48136],
     [48150, 48164, 48175, 48189, 48203, 48217, 48231, 48246],
     [48261, 48276, 48293, 48309, 48324, 48339, 48353, 48367],
     [48384, 48400, 48415, 48430, 48442, 48455, 48471, 48487],
     [48503, 48521, 48538, 48554, 48570, 48585, 48602, 48618],
     [48633, 48648, 48660, 48676, 48692, 48708, 48724, 48742],
     [48759, 48775, 48791, 48806, 48823, 48839, 48854, 48869],
     [48881, 48897, 48913, 48929, 48945, 48963, 48980, 48996],
     [49012, 49027, 49044, 49060, 49075, 49090, 49102, 49118]]"

definition smp_index_offsets_6 :: "int list list" where
  "smp_index_offsets_6 =
    [[49134, 49150, 49166, 49184, 49201, 49217, 49233, 49248],
     [49265, 49281, 49296, 49311, 49323, 49339, 49355, 49371],
     [49387, 49405, 49422, 49438, 49454, 49469, 49480, 49497],
     [49513, 49528, 49543, 49555, 49571, 49587, 49603, 49619],
     [49637, 49654, 49670, 49686, 49701, 49725, 49749, 49772],
     [49796, 49820, 49842, 49856, 49870, 49884, 49898, 49914],
     [49930, 49946, 49960, 49976, 49992, 50008, 50024, 50040],
     [50060, 50080, 50100, 50122, 50143, 50159, 50175, 50193],
     [50210, 50226, 50242, 50260, 50277, 50293, 50309, 50327],
     [50344, 50358, 50372, 50386, 50400, 50411, 50425, 50439],
     [50453, 50467, 50478, 50492, 50506, 50520, 50534, 50545],
     [50559, 50573, 50587, 50601, 50612, 50626, 50640, 50654],
     [50668, 50679, 50693, 50707, 50721, 50735, 50746, 50763],
     [50778, 50792, 50803, 50817, 50828, 50842, 50853, 50867],
     [50879, 50891, 50905, 50917, 50929, 50941, 50955, 50967],
     [50979, 50991, 51005, 51017, 51031, 51045, 51056, 51070],
     [51084, 51098, 51112, 51127, 51142, 51157, 51174, 51190],
     [51205, 51220, 51234, 51248, 51265, 51281, 51296, 51311],
     [51323, 51336, 51352, 51368, 51384, 51402, 51419, 51435],
     [51451, 51466, 51483, 51499, 51514, 51529, 51541, 51557],
     [51573, 51589, 51605, 51623, 51640, 51656, 51672, 51687],
     [51704, 51720, 51735, 51750, 51762, 51778, 51794, 51810],
     [51826, 51844, 51861, 51877, 51893, 51908, 51925, 51941],
     [51956, 51971, 51983, 51999, 52015, 52031, 52047, 52065],
     [52082, 52098, 52114, 52129, 52146, 52162, 52177, 52192],
     [52204, 52220, 52236, 52252, 52268, 52286, 52303, 52319],
     [52335, 52350, 52361, 52378, 52394, 52409, 52424, 52436],
     [52452, 52468, 52484, 52500, 52518, 52535, 52551, 52567],
     [52582, 52606, 52629, 52653, 52675, 52701, 52724, 52748],
     [52772, 52794, 52816, 52838, 52861, 52884, 52907, 52930],
     [52953, 52978, 53003, 53028, 53052, 53077, 53101, 53126],
     [53150, 53175, 53201, 53227, 53253, 53281, 53308, 53332],
     [53356, 53382, 53407, 53431, 53455, 53481, 53506, 53530],
     [53554, 53580, 53605, 53627, 53648, 53670, 53683, 53696],
     [53718, 53731, 53744, 53763, 53788, 53812, 53840, 53867],
     [53892, 53914, 53939, 53966, 53990, 54015, 54040, 54064],
     [54092, 54119, 54144, 54166, 54191, 54216, 54241, 54266],
     [54291, 54316, 54341, 54366, 54391, 54415, 54451, 54478],
     [54503, 54525, 54550, 54579, 54608, 54637, 54664, 54695],
     [54724, 54751, 54780, 54807, 54836, 54865, 54892, 54921],
     [54950, 54977, 54991, 55005, 55019, 55033, 55049, 55065],
     [55081, 55095, 55111, 55127, 55143, 55159, 55175, 55195],
     [55215, 55235, 55257, 55278, 55294, 55310, 55328, 55345],
     [55361, 55377, 55395, 55412, 55428, 55444, 55462, 55479],
     [55493, 55507, 55521, 55535, 55546, 55560, 55574, 55588],
     [55602, 55613, 55627, 55641, 55655, 55669, 55680, 55694],
     [55708, 55722, 55736, 55747, 55761, 55775, 55789, 55803],
     [55814, 55828, 55842, 55856, 55870, 55881, 55898, 55913],
     [55927, 55938, 55952, 55963, 55977, 55988, 56002, 56014],
     [56026, 56040, 56052, 56064, 56076, 56090, 56102, 56114],
     [56126, 56140, 56152, 56166, 56180, 56191, 56205, 56219],
     [56233, 56247, 56262, 56277, 56292, 56309, 56325, 56340],
     [56355, 56369, 56383, 56400, 56416, 56431, 56446, 56458],
     [56471, 56487, 56503, 56519, 56537, 56554, 56570, 56586],
     [56601, 56618, 56634, 56649, 56664, 56676, 56692, 56708],
     [56724, 56740, 56758, 56775, 56791, 56807, 56822, 56839],
     [56855, 56870, 56885, 56897, 56913, 56929, 56945, 56961],
     [56979, 56996, 57012, 57028, 57043, 57060, 57076, 57091],
     [57106, 57118, 57134, 57150, 57166, 57182, 57200, 57217],
     [57233, 57249, 57264, 57281, 57297, 57312, 57327, 57339],
     [57355, 57371, 57387, 57403, 57421, 57438, 57454, 57470],
     [57485, 57496, 57513, 57529, 57544, 57559, 57571, 57587],
     [57603, 57619, 57635, 57653, 57670, 57686, 57702, 57717],
     [57742, 57766, 57791, 57814, 57840, 57864, 57888, 57911],
     [57932, 57953, 57974, 57996, 58018, 58040, 58062, 58084],
     [58108, 58132, 58156, 58179, 58211, 58239, 58252, 58265],
     [58292, 58305, 58318, 58345, 58372, 58385, 58398, 58422],
     [58450, 58478, 58491, 58504, 58531, 58558, 58571, 58584],
     [58610, 58623, 58636, 58663, 58676, 58689, 58715, 58742],
     [58755, 58768, 58794, 58823, 58851, 58881, 58911, 58936],
     [58961, 58992, 59020, 59049, 59078, 59106, 59136, 59166],
     [59191, 59216, 59245, 59274, 59303, 59332, 59361, 59390],
     [59419, 59448, 59476, 59514, 59544, 59569, 59594, 59626],
     [59658, 59690, 59720, 59754, 59786, 59816, 59848, 59878],
     [59910, 59942, 59972, 60004, 60036, 60066, 60092, 60117],
     [60143, 60168, 60194, 60220, 60246, 60272, 60300, 60327],
     [60352, 60377, 60404, 60430, 60455, 60480, 60507, 60533],
     [60558, 60583, 60610, 60636, 60647, 60662, 60677, 60691],
     [60706, 60721, 60736, 60751, 60766, 60781, 60796, 60811],
     [60824, 60828, 60833, 60835, 60838, 60842, 60847, 60880],
     [60882, 60885, 60917, 60928, 60940, 60952, 60963, 60975],
     [60987, 60998, 61010, 61022, 61034, 61046, 61058, 61069],
     [61081, 61094, 61106, 61117, 61129, 61141, 61153, 61164],
     [61176, 61188, 61200, 61212, 61224, 61236, 61247, 61259],
     [61271, 61283, 61295, 61307, 61318, 61330, 61342, 61354],
     [61366, 61378, 61390, 61401, 61414, 61426, 61438, 61450],
     [61461, 61475, 61487, 61499, 61511, 61523, 61534, 61546],
     [61557, 61569, 61580, 61592, 61605, 61617, 61629, 61640],
     [61652, 61664, 61676, 61688, 61700, 61711, 61724, 61736],
     [61748, 61760, 61771, 61783, 61795, 61807, 61819, 61831],
     [61843, 61855, 61866, 61878, 61890, 61902, 61914, 61926],
     [61937, 61948, 61953, 61958, 61963, 61968, 61973, 61978],
     [61983, 61988, 61992, 61994, 62029, 62040, 62042, 62044],
     [62047, 62060, 62071, 62075, 62079, 62090, 62094, 62098],
     [62106, 62113, 62119, 62126, 62130, 62140, 62146, 62153],
     [62158, 62161, 62164, 62166, 62169, 62179, 62183, 62187],
     [62191, 62195, 62199, 62203, 62209, 62215, 62221, 62225],
     [62232, 62239, 62246, 62253, 62260, 62270, 62280, 62290],
     [62302, 62313, 62320, 62327, 62336, 62344, 62351, 62358],
     [62367, 62375, 62382, 62389, 62398, 62406, 62411, 62416],
     [62421, 62426, 62428, 62433, 62438, 62443, 62448, 62450],
     [62455, 62460, 62465, 62470, 62472, 62477, 62482, 62487],
     [62492, 62494, 62499, 62504, 62509, 62514, 62516, 62521],
     [62526, 62531, 62536, 62538, 62546, 62552, 62557, 62559],
     [62564, 62566, 62571, 62573, 62577, 62580, 62583, 62588],
     [62591, 62594, 62597, 62602, 62605, 62608, 62611, 62616],
     [62619, 62624, 62629, 62631, 62636, 62641, 62646, 62651],
     [62657, 62663, 62669, 62677, 62684, 62690, 62696, 62701],
     [62706, 62714, 62721, 62727, 62733, 62736, 62740, 62747],
     [62754, 62761, 62770, 62778, 62785, 62792, 62798, 62806],
     [62813, 62819, 62825, 62828, 62835, 62842, 62849, 62856],
     [62865, 62873, 62880, 62887, 62893, 62901, 62908, 62914],
     [62920, 62923, 62930, 62937, 62944, 62951, 62960, 62968],
     [62975, 62982, 62988, 62996, 63003, 63009, 63015, 63018],
     [63025, 63032, 63039, 63046, 63055, 63063, 63070, 63077],
     [63083, 63091, 63098, 63104, 63110, 63113, 63120, 63127],
     [63134, 63141, 63150, 63158, 63165, 63172, 63178, 63180],
     [63188, 63195, 63201, 63207, 63210, 63217, 63224, 63231],
     [63238, 63247, 63255, 63262, 63269, 63275, 63279, 63283],
     [63297, 63301, 63305, 63316, 63330, 63344, 63357, 63368],
     [63372, 63376, 63387, 63391, 63395, 63403, 63410, 63416],
     [63423, 63427, 63438, 63444, 63452, 63457, 63460, 63463],
     [63465, 63469, 63474, 63479, 63484, 63489, 63496, 63503],
     [63510, 63515, 63522, 63529, 63536, 63543, 63550, 63561],
     [63572, 63583, 63596, 63608, 63615, 63622, 63631, 63639],
     [63646, 63653, 63662, 63670, 63677, 63684, 63693, 63701],
     [63706, 63711, 63716, 63721, 63723, 63728, 63733, 63738],
     [63743, 63745, 63750, 63755, 63760, 63765, 63767, 63772],
     [63777, 63782, 63787, 63789, 63794, 63799, 63804, 63809],
     [63811, 63816, 63821, 63826, 63831, 63833, 63841, 63847],
     [63852, 63854, 63859, 63861, 63866, 63868, 63873, 63876],
     [63879, 63884, 63887, 63890, 63893, 63898, 63901, 63904],
     [63907, 63912, 63915, 63920, 63925, 63927, 63932, 63937],
     [63942, 63947, 63953, 63959, 63965, 63973, 63980, 63986],
     [63992, 63997, 64002, 64010, 64017, 64023, 64029, 64032],
     [64036, 64043, 64050, 64057, 64066, 64074, 64081, 64088],
     [64094, 64102, 64109, 64115, 64121, 64124, 64131, 64138],
     [64145, 64152, 64161, 64169, 64176, 64183, 64189, 64197],
     [64204, 64210, 64216, 64219, 64226, 64233, 64240, 64247],
     [64256, 64264, 64271, 64278, 64284, 64292, 64299, 64305],
     [64311, 64314, 64321, 64328, 64335, 64342, 64351, 64359],
     [64366, 64373, 64379, 64387, 64394, 64400, 64406, 64409],
     [64416, 64423, 64430, 64437, 64446, 64454, 64461, 64468],
     [64474, 64476, 64484, 64491, 64497, 64503, 64506, 64513],
     [64520, 64527, 64534, 64543, 64551, 64558, 64565, 64571],
     [64575, 64579, 64593, 64597, 64601, 64612, 64621, 64630],
     [64639, 64655, 64666, 64670, 64674, 64685, 64689, 64693],
     [64701, 64708, 64714, 64721, 64725, 64736, 64742, 64750],
     [64755, 64758, 64761, 64763, 64767, 64783, 64797, 64801],
     [64805, 64819, 64832, 64836, 64840, 64852, 64865, 64869]]"

definition smp_index_offsets_7 :: "int list list" where
  "smp_index_offsets_7 =
    [[64873, 64886, 64890, 64894, 64904, 64920, 64934, 64953],
     [64971, 64987, 65000, 65016, 65034, 65048, 65064, 65080],
     [65094, 65113, 65131, 65147, 65160, 65176, 65192, 65208],
     [65224, 65240, 65256, 65272, 65288, 65304, 65318, 65345],
     [65363, 65379, 65392, 65408, 65428, 65448, 65468, 65486],
     [65508, 65528, 65546, 65566, 65584, 65604, 65624, 65642],
     [65662, 65682, 65700, 65705, 65710, 65715, 65720, 65727],
     [65734, 65741, 65746, 65753, 65760, 65767, 65774, 65781],
     [65792, 65803, 65814, 65827, 65839, 65846, 65853, 65862],
     [65870, 65877, 65884, 65893, 65901, 65908, 65915, 65924],
     [65932, 65937, 65942, 65947, 65952, 65954, 65959, 65964],
     [65969, 65974, 65976, 65981, 65986, 65991, 65996, 65998],
     [66003, 66008, 66013, 66018, 66020, 66025, 66030, 66035],
     [66040, 66042, 66047, 66052, 66057, 66062, 66064, 66072],
     [66078, 66083, 66085, 66090, 66092, 66097, 66099, 66104],
     [66107, 66110, 66115, 66118, 66121, 66124, 66129, 66132],
     [66135, 66138, 66143, 66146, 66151, 66156, 66158, 66163],
     [66168, 66173, 66178, 66184, 66190, 66196, 66204, 66211],
     [66217, 66223, 66228, 66233, 66241, 66248, 66254, 66260],
     [66263, 66267, 66274, 66281, 66288, 66297, 66305, 66312],
     [66319, 66325, 66333, 66340, 66346, 66352, 66355, 66362],
     [66369, 66376, 66383, 66392, 66400, 66407, 66414, 66420],
     [66428, 66435, 66441, 66447, 66450, 66457, 66464, 66471],
     [66478, 66487, 66495, 66502, 66509, 66515, 66523, 66530],
     [66536, 66542, 66545, 66552, 66559, 66566, 66573, 66582],
     [66590, 66597, 66604, 66610, 66618, 66625, 66631, 66637],
     [66640, 66647, 66654, 66661, 66668, 66677, 66685, 66692],
     [66699, 66705, 66707, 66715, 66722, 66728, 66734, 66737],
     [66744, 66751, 66758, 66765, 66774, 66782, 66789, 66796],
     [66802, 66818, 66833, 66849, 66863, 66880, 66895, 66910],
     [66924, 66936, 66948, 66960, 66974, 66988, 67002, 67016],
     [67030, 67046, 67062, 67078, 67093, 67116, 67134, 67138],
     [67142, 67160, 67164, 67168, 67186, 67204, 67208, 67212],
     [67227, 67245, 67263, 67267, 67271, 67288, 67305, 67309],
     [67313, 67330, 67334, 67338, 67356, 67360, 67364, 67381],
     [67399, 67403, 67407, 67424, 67444, 67462, 67483, 67504],
     [67520, 67536, 67558, 67576, 67596, 67616, 67634, 67655],
     [67676, 67692, 67708, 67728, 67748, 67768, 67788, 67808],
     [67828, 67848, 67868, 67886, 67915, 67936, 67952, 67968],
     [67991, 68014, 68037, 68058, 68083, 68106, 68127, 68150],
     [68171, 68194, 68217, 68238, 68261, 68284, 68305, 68322],
     [68338, 68355, 68371, 68388, 68405, 68422, 68439, 68458],
     [68476, 68492, 68508, 68526, 68543, 68559, 68575, 68593],
     [68610, 68626, 68642, 68660, 68677, 68684, 68693, 68702],
     [68709, 68718, 68727, 68734, 68742, 68752, 68764, 68768],
     [68772, 68782, 68792, 68802, 68812, 68820, 68830, 68840],
     [68850, 68860, 68870, 68880, 68890, 68898, 68912, 68929],
     [68945, 68962, 68978, 68993, 69010, 69026, 69041, 69049],
     [69053, 69059, 69071, 69083, 69094, 69106, 69118, 69129],
     [69141, 69153, 69165, 69177, 69189, 69200, 69213, 69226],
     [69239, 69250, 69252, 69255, 69257, 69260, 69262, 69264],
     [69266, 69268, 69270, 69272, 69274, 69276, 69288, 69301],
     [69313, 69324, 69336, 69348, 69360, 69371, 69383, 69395],
     [69407, 69419, 69431, 69443, 69454, 69466, 69478, 69490],
     [69502, 69514, 69525, 69537, 69549, 69561, 69573, 69585],
     [69597, 69608, 69621, 69633, 69645, 69657, 69668, 69682],
     [69694, 69706, 69718, 69730, 69741, 69753, 69764, 69776],
     [69787, 69799, 69812, 69824, 69836, 69847, 69859, 69871],
     [69883, 69895, 69907, 69918, 69933, 69945, 69957, 69969],
     [69980, 69992, 70004, 70016, 70028, 70040, 70052, 70064],
     [70075, 70087, 70099, 70111, 70123, 70135, 70146, 70159]]"

definition smp_cond_offsets :: "int list" where
  "smp_cond_offsets =
     concat smp_cond_offsets_1 @ concat smp_cond_offsets_2 @ concat smp_cond_offsets_3 @
     concat smp_cond_offsets_4 @ concat smp_cond_offsets_5 @ concat smp_cond_offsets_6 @
     concat smp_cond_offsets_7"

definition smp_cond_lengths :: "int list" where
  "smp_cond_lengths =
     concat smp_cond_lengths_1 @ concat smp_cond_lengths_2 @ concat smp_cond_lengths_3 @
     concat smp_cond_lengths_4 @ concat smp_cond_lengths_5 @ concat smp_cond_lengths_6 @
     concat smp_cond_lengths_7"

definition smp_key_offsets :: "int list" where
  "smp_key_offsets =
     concat smp_key_offsets_1 @ concat smp_key_offsets_2 @ concat smp_key_offsets_3 @
     concat smp_key_offsets_4 @ concat smp_key_offsets_5 @ concat smp_key_offsets_6 @
     concat smp_key_offsets_7"

definition smp_single_lengths :: "int list" where
  "smp_single_lengths =
     concat smp_single_lengths_1 @ concat smp_single_lengths_2 @ concat smp_single_lengths_3 @
     concat smp_single_lengths_4 @ concat smp_single_lengths_5 @ concat smp_single_lengths_6 @
     concat smp_single_lengths_7"

definition smp_range_lengths :: "int list" where
  "smp_range_lengths =
     concat smp_range_lengths_1 @ concat smp_range_lengths_2 @ concat smp_range_lengths_3 @
     concat smp_range_lengths_4 @ concat smp_range_lengths_5 @ concat smp_range_lengths_6 @
     concat smp_range_lengths_7"

definition smp_index_offsets :: "int list" where
  "smp_index_offsets =
     concat smp_index_offsets_1 @ concat smp_index_offsets_2 @ concat smp_index_offsets_3 @
     concat smp_index_offsets_4 @ concat smp_index_offsets_5 @ concat smp_index_offsets_6 @
     concat smp_index_offsets_7"

lemma smp_cond_offsets_1_state: "all6 smp_state 0 1200
     (concat smp_cond_offsets_1) (concat smp_cond_lengths_1) (concat smp_key_offsets_1)
     (concat smp_single_lengths_1) (concat smp_range_lengths_1) (concat smp_index_offsets_1)"
  by (simp only: smp_state_eq smp_early_def if_True if_False row_arith
      smp_cond_offsets_1_def smp_cond_lengths_1_def smp_key_offsets_1_def
      smp_single_lengths_1_def smp_range_lengths_1_def smp_index_offsets_1_def)

lemma smp_cond_offsets_2_state: "all6 smp_state 1200 2400
     (concat smp_cond_offsets_2) (concat smp_cond_lengths_2) (concat smp_key_offsets_2)
     (concat smp_single_lengths_2) (concat smp_range_lengths_2) (concat smp_index_offsets_2)"
  by (simp only: smp_state_eq smp_early_def if_True if_False row_arith
      smp_cond_offsets_2_def smp_cond_lengths_2_def smp_key_offsets_2_def
      smp_single_lengths_2_def smp_range_lengths_2_def smp_index_offsets_2_def)

lemma smp_cond_offsets_3_state: "all6 smp_state 2400 3600
     (concat smp_cond_offsets_3) (concat smp_cond_lengths_3) (concat smp_key_offsets_3)
     (concat smp_single_lengths_3) (concat smp_range_lengths_3) (concat smp_index_offsets_3)"
  by (simp only: smp_state_eq smp_early_def if_True if_False row_arith
      smp_cond_offsets_3_def smp_cond_lengths_3_def smp_key_offsets_3_def
      smp_single_lengths_3_def smp_range_lengths_3_def smp_index_offsets_3_def)

lemma smp_cond_offsets_4_state: "all6 smp_state 3600 4800
     (concat smp_cond_offsets_4) (concat smp_cond_lengths_4) (concat smp_key_offsets_4)
     (concat smp_single_lengths_4) (concat smp_range_lengths_4) (concat smp_index_offsets_4)"
  by (simp only: smp_state_eq smp_early_def if_True if_False row_arith
      smp_cond_offsets_4_def smp_cond_lengths_4_def smp_key_offsets_4_def
      smp_single_lengths_4_def smp_range_lengths_4_def smp_index_offsets_4_def)

lemma smp_cond_offsets_5_state: "all6 smp_state 4800 6000
     (concat smp_cond_offsets_5) (concat smp_cond_lengths_5) (concat smp_key_offsets_5)
     (concat smp_single_lengths_5) (concat smp_range_lengths_5) (concat smp_index_offsets_5)"
  by (simp only: smp_state_eq smp_early_def if_True if_False row_arith
      smp_cond_offsets_5_def smp_cond_lengths_5_def smp_key_offsets_5_def
      smp_single_lengths_5_def smp_range_lengths_5_def smp_index_offsets_5_def)

lemma smp_cond_offsets_6_state: "all6 smp_state 6000 7200
     (concat smp_cond_offsets_6) (concat smp_cond_lengths_6) (concat smp_key_offsets_6)
     (concat smp_single_lengths_6) (concat smp_range_lengths_6) (concat smp_index_offsets_6)"
  by (simp only: smp_state_eq smp_early_def if_True if_False row_arith
      smp_cond_offsets_6_def smp_cond_lengths_6_def smp_key_offsets_6_def
      smp_single_lengths_6_def smp_range_lengths_6_def smp_index_offsets_6_def)

lemma smp_cond_offsets_7_state: "all6 smp_state 7200 7688
     (concat smp_cond_offsets_7) (concat smp_cond_lengths_7) (concat smp_key_offsets_7)
     (concat smp_single_lengths_7) (concat smp_range_lengths_7) (concat smp_index_offsets_7)"
  by (simp only: smp_state_eq smp_early_def if_True if_False row_arith
      smp_cond_offsets_7_def smp_cond_lengths_7_def smp_key_offsets_7_def
      smp_single_lengths_7_def smp_range_lengths_7_def smp_index_offsets_7_def)

lemma smp_cond_offsets_state: "all6 smp_state 0 7688 smp_cond_offsets smp_cond_lengths smp_key_offsets smp_single_lengths smp_range_lengths smp_index_offsets"
  unfolding smp_cond_offsets_def smp_cond_lengths_def smp_key_offsets_def smp_single_lengths_def smp_range_lengths_def smp_index_offsets_def
  by (intro all6_append)
    (rule
      smp_cond_offsets_1_state smp_cond_offsets_2_state smp_cond_offsets_3_state
      smp_cond_offsets_4_state smp_cond_offsets_5_state smp_cond_offsets_6_state
      smp_cond_offsets_7_state)+

end
