(* ===== verification/Sip_Msg_Keys.thy ===== *)
theory Sip_Msg_Keys
  imports Ragel_Cond
begin

text \<open>
  The array \<open>trans_keys\<close> of ext/sip_parser/sip_message_parser.c.
\<close>

definition smp_trans_keys_1 :: "int list list" where
  "smp_trans_keys_1 =
    [[13, 33, 37, 39, 65, 66, 67, 72],
     [73, 77, 78, 79, 80, 82, 83, 85],
     [104, 115, 126, 42, 43, 45, 46, 48],
     [57, 68, 90, 95, 122, 10, 13, 33],
     [37, 39, 65, 66, 67, 72, 73, 77],
     [78, 79, 80, 82, 83, 85, 104, 115],
     [126, 42, 43, 45, 46, 48, 57, 68],
     [90, 95, 122, 10, 32, 33, 37, 39],
     [126, 42, 43, 45, 46, 48, 57, 65],
     [90, 95, 122, 83, 84, 115, 116, 65],
     [90, 97, 122, 43, 58, 45, 46, 48],
     [57, 65, 90, 97, 122, 32, 33, 35],
     [37, 47, 58, 61, 64, 91, 95, 126],
     [36, 59, 63, 90, 97, 122, 72, 83],
     [104, 115, 84, 116, 84, 116, 80, 112],
     [47, 48, 57, 46, 48, 57, 48, 57],
     [13, 48, 57, 10, 13, 33, 37, 39],
     [67, 70, 73, 75, 76, 77, 80, 82],
     [83, 84, 86, 99, 102, 105, 107, 108],
     [109, 112, 114, 115, 116, 118, 126, 42],
     [43, 45, 46, 48, 57, 65, 90, 95],
     [122, 10, 9, 32, 33, 37, 39, 58],
     [126, 42, 43, 45, 46, 48, 57, 65],
     [90, 95, 122, 9, 32, 58, 9, 13],
     [32, 127, -64, -33, -32, -17, -16, -9],
     [-8, -5, -4, -3, -2, 31, 13, 127],
     [-64, -33, -32, -17, -16, -9, -8, -5],
     [-4, -3, -2, 8, 10, 31, -128, -65],
     [-128, -65, -128, -65, -128, -65, -128, -65],
     [10, 9, 13, 32, 33, 37, 39, 67],
     [70, 73, 75, 76, 77, 80, 82, 83],
     [84, 86, 99, 102, 105, 107, 108, 109],
     [112, 114, 115, 116, 118, 126, 42, 43],
     [45, 46, 48, 57, 65, 90, 95, 122],
     [9, 32, 33, 37, 39, 58, 65, 79],
     [83, 97, 111, 115, 126, 42, 43, 45],
     [46, 48, 57, 66, 90, 95, 122, 9],
     [32, 33, 37, 39, 58, 76, 108, 126],
     [42, 43, 45, 46, 48, 57, 65, 90],
     [95, 122, 9, 32, 33, 37, 39, 58],
     [76, 108, 126, 42, 43, 45, 46, 48],
     [57, 65, 90, 95, 122, 9, 32, 33],
     [37, 39, 45, 46, 58, 126, 42, 43],
     [48, 57, 65, 90, 95, 122, 9, 32],
     [33, 37, 39, 58, 73, 105, 126, 42],
     [43, 45, 46, 48, 57, 65, 90, 95],
     [122, 9, 32, 33, 37, 39, 58, 68],
     [100, 126, 42, 43, 45, 46, 48, 57],
     [65, 90, 95, 122, 9, 32, 33, 37],
     [39, 58, 126, 42, 43, 45, 46, 48],
     [57, 65, 90, 95, 122, 9, 32, 58],
     [9, 13, 32, 37, 60, 33, 34, 39],
     [43, 45, 58, 62, 63, 65, 93, 95],
     [123, 125, 126, 10, 9, 32, 9, 32],
     [37, 60, 33, 34, 39, 43, 45, 58],
     [62, 63, 65, 93, 95, 123, 125, 126],
     [13, 37, 60, 64, 33, 34, 39, 43],
     [45, 58, 62, 93, 95, 123, 125, 126],
     [37, 60, 33, 34, 39, 43, 45, 58],
     [62, 63, 65, 93, 95, 123, 125, 126],
     [13, 37, 60, 33, 34, 39, 43, 45],
     [58, 62, 63, 65, 93, 95, 123, 125],
     [126, 9, 32, 33, 37, 39, 58, 78],
     [110, 126, 42, 43, 45, 46, 48, 57],
     [65, 90, 95, 122, 9, 32, 33, 37],
     [39, 58, 84, 116, 126, 42, 43, 45],
     [46, 48, 57, 65, 90, 95, 122, 9],
     [32, 33, 37, 39, 58, 65, 69, 97],
     [101, 126, 42, 43, 45, 46, 48, 57],
     [66, 90, 95, 122, 9, 32, 33, 37],
     [39, 58, 67, 99, 126, 42, 43, 45],
     [46, 48, 57, 65, 90, 95, 122, 9],
     [32, 33, 37, 39, 58, 84, 116, 126],
     [42, 43, 45, 46, 48, 57, 65, 90],
     [95, 122, 9, 32, 33, 37, 39, 58],
     [126, 42, 43, 45, 46, 48, 57, 65],
     [90, 95, 122, 9, 32, 58, 9, 13],
     [32, 33, 34, 37, 39, 60, 83, 115],
     [126, 127, -64, -33, -32, -17, -16, -9],
     [-8, -5, -4, -3, -2, 31, 42, 43],
     [45, 46, 48, 57, 65, 90, 95, 122],
     [10, 9, 13, 32, 33, 37, 39, 67],
     [70, 73, 75, 76, 77, 80, 82, 83],
     [84, 86, 99, 102, 105, 107, 108, 109],
     [112, 114, 115, 116, 118, 126, 42, 43],
     [45, 46, 48, 57, 65, 90, 95, 122],
     [9, 13, 32, 33, 34, 37, 39, 60],
     [83, 115, 126, 127, -64, -33, -32, -17],
     [-16, -9, -8, -5, -4, -3, -2, 31],
     [42, 43, 45, 46, 48, 57, 65, 90],
     [95, 122, 10, 9, 13, 32, 33, 37],
     [39, 67, 70, 73, 75, 76, 77, 80],
     [82, 83, 84, 86, 99, 102, 105, 107],
     [108, 109, 112, 114, 115, 116, 118, 126],
     [42, 43, 45, 46, 48, 57, 65, 90],
     [95, 122, 9, 13, 32, 60, 127, -64],
     [-33, -32, -17, -16, -9, -8, -5, -4],
     [-3, -2, 31, 13, 83, 115, 127, -64],
     [-33, -32, -17, -16, -9, -8, -5, -4],
     [-3, -2, 8, 10, 31, 13, 73, 105],
     [127, -64, -33, -32, -17, -16, -9, -8],
     [-5, -4, -3, -2, 8, 10, 31, 13],
     [80, 112, 127, -64, -33, -32, -17, -16],
     [-9, -8, -5, -4, -3, -2, 8, 10],
     [31, 13, 58, 83, 115, 127, -64, -33],
     [-32, -17, -16, -9, -8, -5, -4, -3],
     [-2, 8, 10, 31, 13, 33, 37, 48],
     [49, 50, 59, 61, 63, 91, 95, 126],
     [127, -64, -33, -32, -17, -16, -9, -8],
     [-5, -4, -3, -2, 8, 10, 31, 35],
     [47, 51, 57, 65, 90, 97, 122, 9],
     [13, 32, 34, 37, 58, 60, 62, 64],
     [96, 127, -128, -65, -64, -33, -32, -17],
     [-16, -9, -8, -5, -4, -3, -2, 31],
     [91, 94, 123, 125, 13, 127, -64, -33],
     [-32, -17, -16, -9, -8, -5, -4, -3],
     [-2, 8, 10, 31, 48, 57, 65, 70],
     [97, 102, 13, 127, -64, -33, -32, -17],
     [-16, -9, -8, -5, -4, -3, -2, 8],
     [10, 31, 48, 57, 65, 70, 97, 102],
     [13, 33, 37, 61, 64, 95, 126, 127],
     [-64, -33, -32, -17, -16, -9, -8, -5],
     [-4, -3, -2, 8, 10, 31, 36, 46],
     [48, 57, 65, 90, 97, 122, 13, 127],
     [-64, -33, -32, -17, -16, -9, -8, -5],
     [-4, -3, -2, 8, 10, 31, 48, 57],
     [65, 70, 97, 102, 13, 127, -64, -33],
     [-32, -17, -16, -9, -8, -5, -4, -3],
     [-2, 8, 10, 31, 48, 57, 65, 70],
     [97, 102, 13, 48, 49, 50, 91, 127],
     [-64, -33, -32, -17, -16, -9, -8, -5],
     [-4, -3, -2, 8, 10, 31, 51, 57],
     [65, 90, 97, 122, 13, 45, 46, 95],
     [127, -64, -33, -32, -17, -16, -9, -8],
     [-5, -4, -3, -2, 8, 10, 31, 48],
     [57, 65, 90, 97, 122, 13, 45, 95],
     [127, -64, -33, -32, -17, -16, -9, -8],
     [-5, -4, -3, -2, 8, 10, 31, 48],
     [57, 65, 90, 97, 122, 13, 45, 46],
     [95, 127, -64, -33, -32, -17, -16, -9],
     [-8, -5, -4, -3, -2, 8, 10, 31],
     [48, 57, 65, 90, 97, 122, 13, 127],
     [-64, -33, -32, -17, -16, -9, -8, -5],
     [-4, -3, -2, 8, 10, 31, 48, 57],
     [65, 90, 97, 122, 13, 45, 46, 58],
     [59, 62, 63, 95, 127, -64, -33, -32],
     [-17, -16, -9, -8, -5, -4, -3, -2],
     [8, 10, 31, 48, 57, 65, 90, 97],
     [122, 13, 45, 95, 127, -64, -33, -32],
     [-17, -16, -9, -8, -5, -4, -3, -2]]"

definition smp_trans_keys_2 :: "int list list" where
  "smp_trans_keys_2 =
    [[8, 10, 31, 48, 57, 65, 90, 97],
     [122, 13, 58, 59, 62, 63, 127, -64],
     [-33, -32, -17, -16, -9, -8, -5, -4],
     [-3, -2, 8, 10, 31, 48, 57, 65],
     [90, 97, 122, 13, 48, 54, 127, -64],
     [-33, -32, -17, -16, -9, -8, -5, -4],
     [-3, -2, 8, 10, 31, 49, 53, 55],
     [57, 13, 48, 127, -64, -33, -32, -17],
     [-16, -9, -8, -5, -4, -3, -2, 8],
     [10, 31, 49, 57, 13, 48, 127, -64],
     [-33, -32, -17, -16, -9, -8, -5, -4],
     [-3, -2, 8, 10, 31, 49, 57, 13],
     [127, -64, -33, -32, -17, -16, -9, -8],
     [-5, -4, -3, -2, 8, 10, 31, 49],
     [57, 13, 59, 62, 63, 127, -64, -33],
     [-32, -17, -16, -9, -8, -5, -4, -3],
     [-2, 8, 10, 31, 13, 33, 37, 76],
     [79, 84, 93, 95, 108, 111, 116, 126],
     [127, -64, -33, -32, -17, -16, -9, -8],
     [-5, -4, -3, -2, 8, 10, 31, 36],
     [43, 45, 58, 65, 91, 97, 122, 9],
     [13, 32, 37, 44, 59, 61, 62, 63],
     [92, 94, 96, 127, -128, -65, -64, -33],
     [-32, -17, -16, -9, -8, -5, -4, -3],
     [-2, 31, 34, 35, 60, 64, 123, 125],
     [13, 127, -64, -33, -32, -17, -16, -9],
     [-8, -5, -4, -3, -2, 8, 10, 31],
     [48, 57, 65, 70, 97, 102, 13, 127],
     [-64, -33, -32, -17, -16, -9, -8, -5],
     [-4, -3, -2, 8, 10, 31, 48, 57],
     [65, 70, 97, 102, 9, 13, 32, 37],
     [44, 59, 61, 62, 63, 92, 94, 96],
     [127, -128, -65, -64, -33, -32, -17, -16],
     [-9, -8, -5, -4, -3, -2, 31, 34],
     [35, 60, 64, 123, 125, 9, 13, 32],
     [37, 44, 59, 62, 63, 92, 94, 96],
     [127, -128, -65, -64, -33, -32, -17, -16],
     [-9, -8, -5, -4, -3, -2, 31, 34],
     [35, 60, 64, 123, 125, 13, 127, -64],
     [-33, -32, -17, -16, -9, -8, -5, -4],
     [-3, -2, 8, 10, 31, 48, 57, 65],
     [70, 97, 102, 13, 127, -64, -33, -32],
     [-17, -16, -9, -8, -5, -4, -3, -2],
     [8, 10, 31, 48, 57, 65, 70, 97],
     [102, 9, 13, 32, 44, 59, 127, -64],
     [-33, -32, -17, -16, -9, -8, -5, -4],
     [-3, -2, 31, 9, 13, 32, 44, 59],
     [127, -64, -33, -32, -17, -16, -9, -8],
     [-5, -4, -3, -2, 31, 10, 9, 13],
     [32, 33, 37, 39, 67, 70, 73, 75],
     [76, 77, 80, 82, 83, 84, 86, 99],
     [102, 105, 107, 108, 109, 112, 114, 115],
     [116, 118, 126, 42, 43, 45, 46, 48],
     [57, 65, 90, 95, 122, 9, 13, 32],
     [44, 59, 127, -64, -33, -32, -17, -16],
     [-9, -8, -5, -4, -3, -2, 31, 9],
     [13, 32, 33, 34, 37, 39, 60, 83],
     [115, 126, 127, -64, -33, -32, -17, -16],
     [-9, -8, -5, -4, -3, -2, 31, 42],
     [43, 45, 46, 48, 57, 65, 90, 95],
     [122, 10, 9, 13, 32, 33, 37, 39],
     [67, 70, 73, 75, 76, 77, 80, 82],
     [83, 84, 86, 99, 102, 105, 107, 108],
     [109, 112, 114, 115, 116, 118, 126, 42],
     [43, 45, 46, 48, 57, 65, 90, 95],
     [122, 9, 13, 32, 33, 34, 37, 39],
     [60, 83, 115, 126, 127, -64, -33, -32],
     [-17, -16, -9, -8, -5, -4, -3, -2],
     [31, 42, 43, 45, 46, 48, 57, 65],
     [90, 95, 122, 9, 13, 32, 33, 37],
     [39, 60, 126, 127, -64, -33, -32, -17],
     [-16, -9, -8, -5, -4, -3, -2, 31],
     [42, 43, 45, 46, 48, 57, 65, 90],
     [95, 122, 9, 13, 32, 33, 37, 39],
     [60, 126, 127, -64, -33, -32, -17, -16],
     [-9, -8, -5, -4, -3, -2, 31, 42],
     [43, 45, 46, 48, 57, 65, 90, 95],
     [122, 10, 9, 13, 32, 33, 37, 39],
     [67, 70, 73, 75, 76, 77, 80, 82],
     [83, 84, 86, 99, 102, 105, 107, 108],
     [109, 112, 114, 115, 116, 118, 126, 42],
     [43, 45, 46, 48, 57, 65, 90, 95],
     [122, 9, 13, 32, 33, 37, 39, 60],
     [126, 127, -64, -33, -32, -17, -16, -9],
     [-8, -5, -4, -3, -2, 31, 42, 43],
     [45, 46, 48, 57, 65, 90, 95, 122],
     [9, 32, 33, 37, 39, 58, 82, 114],
     [126, 42, 43, 45, 46, 48, 57, 65],
     [90, 95, 122, 9, 32, 58, 9, 13],
     [32, 33, 34, 37, 39, 60, 83, 84],
     [115, 116, 126, 42, 43, 45, 46, 48],
     [57, 65, 90, 95, 96, 97, 122, 10],
     [9, 32, 9, 13, 32, 33, 34, 37],
     [39, 60, 83, 84, 115, 116, 126, 42],
     [43, 45, 46, 48, 57, 65, 90, 95],
     [96, 97, 122, 10, 9, 32, 9, 32],
     [60, 83, 84, 115, 116, 65, 90, 97],
     [122, 43, 58, 45, 46, 48, 57, 65],
     [90, 97, 122, 33, 35, 37, 47, 58],
     [62, 64, 91, 95, 126, 36, 59, 61],
     [90, 97, 122, 33, 35, 37, 58, 62],
     [64, 95, 126, 36, 59, 61, 90, 97],
     [122, 33, 37, 58, 61, 64, 95, 126],
     [35, 59, 63, 90, 97, 122, 48, 57],
     [65, 70, 97, 102, 48, 57, 65, 70],
     [97, 102, 33, 37, 61, 64, 95, 126],
     [36, 46, 48, 57, 65, 90, 97, 122],
     [48, 57, 65, 70, 97, 102, 48, 57],
     [65, 70, 97, 102, 48, 49, 50, 91],
     [51, 57, 65, 90, 97, 122, 45, 46],
     [95, 48, 57, 65, 90, 97, 122, 45],
     [95, 48, 57, 65, 90, 97, 122, 45],
     [46, 95, 48, 57, 65, 90, 97, 122],
     [48, 57, 65, 90, 97, 122, 45, 46],
     [58, 62, 63, 95, 48, 57, 65, 90],
     [97, 122, 45, 95, 48, 57, 65, 90],
     [97, 122, 58, 62, 63, 48, 57, 65],
     [90, 97, 122, 48, 54, 49, 53, 55],
     [57, 48, 49, 57, 48, 49, 57, 49],
     [57, 62, 63, 9, 13, 32, 59, 10],
     [9, 13, 32, 33, 37, 39, 67, 70],
     [73, 75, 76, 77, 80, 82, 83, 84],
     [86, 99, 102, 105, 107, 108, 109, 112],
     [114, 115, 116, 118, 126, 42, 43, 45],
     [46, 48, 57, 65, 90, 95, 122, 9],
     [13, 32, 59, 10, 9, 13, 32, 33],
     [37, 39, 67, 70, 73, 75, 76, 77],
     [80, 82, 83, 84, 86, 99, 102, 105],
     [107, 108, 109, 112, 114, 115, 116, 118],
     [126, 42, 43, 45, 46, 48, 57, 65],
     [90, 95, 122, 9, 32, 59, 9, 13],
     [32, 33, 37, 39, 84, 116, 126, 42],
     [43, 45, 46, 48, 57, 65, 90, 95],
     [122, 10, 9, 32, 9, 32, 33, 37],
     [39, 84, 116, 126, 42, 43, 45, 46],
     [48, 57, 65, 90, 95, 122, 9, 13],
     [32, 33, 37, 39, 59, 61, 126, 42],
     [43, 45, 46, 48, 57, 65, 90, 95],
     [122, 9, 13, 32, 59, 61, 10, 9],
     [32, 9, 32, 59, 61, 9, 13, 32],
     [33, 34, 37, 39, 91, 126, 42, 43],
     [45, 46, 48, 57, 65, 90, 95, 122],
     [10, 9, 32, 9, 32, 33, 34, 37],
     [39, 91, 126, 42, 43, 45, 46, 48],
     [57, 65, 90, 95, 122, 9, 13, 32],
     [33, 37, 39, 59, 126, 42, 43, 45],
     [46, 48, 57, 65, 90, 95, 122, 9],
     [13, 32, 59, 10, 9, 32, 9, 13],
     [34, 92, -64, -33, -32, -17, -16, -9],
     [-8, -5, -4, -3, 32, 126, -128, -65]]"

definition smp_trans_keys_3 :: "int list list" where
  "smp_trans_keys_3 =
    [[-128, -65, -128, -65, -128, -65, -128, -65],
     [10, 9, 32, 9, 13, 32, 59, 0],
     [9, 11, 12, 14, 127, 58, 48, 57],
     [65, 70, 97, 102, 58, 48, 57, 65],
     [70, 97, 102, 58, 48, 57, 65, 70],
     [97, 102, 58, 48, 57, 65, 70, 97],
     [102, 58, 58, 48, 57, 65, 70, 97],
     [102, 58, 48, 57, 65, 70, 97, 102],
     [58, 48, 57, 65, 70, 97, 102, 58],
     [48, 57, 65, 70, 97, 102, 58, 58],
     [48, 57, 65, 70, 97, 102, 58, 48],
     [57, 65, 70, 97, 102, 58, 48, 57],
     [65, 70, 97, 102, 58, 48, 57, 65],
     [70, 97, 102, 58, 58, 48, 57, 65],
     [70, 97, 102, 58, 48, 57, 65, 70],
     [97, 102, 58, 48, 57, 65, 70, 97],
     [102, 58, 48, 57, 65, 70, 97, 102],
     [58, 58, 48, 57, 65, 70, 97, 102],
     [58, 48, 57, 65, 70, 97, 102, 58],
     [48, 57, 65, 70, 97, 102, 58, 48],
     [57, 65, 70, 97, 102, 58, 58, 48],
     [57, 65, 70, 97, 102, 58, 48, 57],
     [65, 70, 97, 102, 58, 48, 57, 65],
     [70, 97, 102, 58, 48, 57, 65, 70],
     [97, 102, 58, 48, 49, 50, 58, 51],
     [57, 65, 70, 97, 102, 46, 58, 48],
     [57, 65, 70, 97, 102, 48, 49, 50],
     [51, 57, 46, 48, 49, 50, 51, 57],
     [46, 48, 49, 50, 51, 57, 93, 93],
     [48, 57, 93, 48, 57, 53, 93, 48],
     [52, 54, 57, 93, 48, 53, 46, 48],
     [57, 46, 48, 57, 46, 53, 48, 52],
     [54, 57, 46, 48, 53, 46, 48, 57],
     [46, 48, 57, 46, 53, 48, 52, 54],
     [57, 46, 48, 53, 58, 48, 57, 65],
     [70, 97, 102, 58, 48, 57, 65, 70],
     [97, 102, 58, 58, 48, 57, 65, 70],
     [97, 102, 93, 48, 57, 65, 70, 97],
     [102, 93, 48, 57, 65, 70, 97, 102],
     [93, 48, 57, 65, 70, 97, 102, 46],
     [58, 48, 57, 65, 70, 97, 102, 46],
     [58, 48, 57, 65, 70, 97, 102, 46],
     [58, 48, 57, 65, 70, 97, 102, 46],
     [53, 58, 48, 52, 54, 57, 65, 70],
     [97, 102, 46, 58, 48, 53, 54, 57],
     [65, 70, 97, 102, 46, 58, 48, 57],
     [65, 70, 97, 102, 46, 58, 48, 57],
     [65, 70, 97, 102, 93, 48, 57, 65],
     [70, 97, 102, 58, 48, 57, 65, 70],
     [97, 102, 48, 49, 50, 93, 51, 57],
     [65, 70, 97, 102, 46, 58, 93, 48],
     [57, 65, 70, 97, 102, 58, 93, 48],
     [57, 65, 70, 97, 102, 58, 93, 48],
     [57, 65, 70, 97, 102, 58, 93, 48],
     [57, 65, 70, 97, 102, 46, 58, 93],
     [48, 57, 65, 70, 97, 102, 46, 58],
     [93, 48, 57, 65, 70, 97, 102, 46],
     [58, 93, 48, 57, 65, 70, 97, 102],
     [46, 53, 58, 93, 48, 52, 54, 57],
     [65, 70, 97, 102, 46, 58, 93, 48],
     [53, 54, 57, 65, 70, 97, 102, 46],
     [58, 93, 48, 57, 65, 70, 97, 102],
     [46, 58, 93, 48, 57, 65, 70, 97],
     [102, 58, 93, 48, 57, 65, 70, 97],
     [102, 48, 49, 50, 93, 51, 57, 65],
     [70, 97, 102, 46, 58, 93, 48, 57],
     [65, 70, 97, 102, 58, 93, 48, 57],
     [65, 70, 97, 102, 58, 93, 48, 57],
     [65, 70, 97, 102, 58, 93, 48, 49],
     [50, 51, 57, 65, 70, 97, 102, 46],
     [58, 93, 48, 57, 65, 70, 97, 102],
     [46, 58, 93, 48, 57, 65, 70, 97],
     [102, 46, 58, 93, 48, 57, 65, 70],
     [97, 102, 46, 53, 58, 93, 48, 52],
     [54, 57, 65, 70, 97, 102, 46, 58],
     [93, 48, 53, 54, 57, 65, 70, 97],
     [102, 46, 58, 93, 48, 57, 65, 70],
     [97, 102, 46, 58, 93, 48, 57, 65],
     [70, 97, 102, 58, 93, 48, 57, 65],
     [70, 97, 102, 48, 49, 50, 93, 51],
     [57, 65, 70, 97, 102, 46, 58, 93],
     [48, 57, 65, 70, 97, 102, 58, 93],
     [48, 57, 65, 70, 97, 102, 58, 93],
     [48, 57, 65, 70, 97, 102, 58, 93],
     [48, 49, 50, 51, 57, 65, 70, 97],
     [102, 46, 58, 93, 48, 57, 65, 70],
     [97, 102, 46, 58, 93, 48, 57, 65],
     [70, 97, 102, 46, 58, 93, 48, 57],
     [65, 70, 97, 102, 46, 53, 58, 93],
     [48, 52, 54, 57, 65, 70, 97, 102],
     [46, 58, 93, 48, 53, 54, 57, 65],
     [70, 97, 102, 46, 58, 93, 48, 57],
     [65, 70, 97, 102, 46, 58, 93, 48],
     [57, 65, 70, 97, 102, 58, 93, 48],
     [57, 65, 70, 97, 102, 48, 49, 50],
     [93, 51, 57, 65, 70, 97, 102, 46],
     [58, 93, 48, 57, 65, 70, 97, 102],
     [58, 93, 48, 57, 65, 70, 97, 102],
     [58, 93, 48, 57, 65, 70, 97, 102],
     [58, 93, 48, 49, 50, 51, 57, 65],
     [70, 97, 102, 46, 58, 93, 48, 57],
     [65, 70, 97, 102, 46, 58, 93, 48],
     [57, 65, 70, 97, 102, 46, 58, 93],
     [48, 57, 65, 70, 97, 102, 46, 53],
     [58, 93, 48, 52, 54, 57, 65, 70],
     [97, 102, 46, 58, 93, 48, 53, 54],
     [57, 65, 70, 97, 102, 46, 58, 93],
     [48, 57, 65, 70, 97, 102, 46, 58],
     [93, 48, 57, 65, 70, 97, 102, 58],
     [93, 48, 57, 65, 70, 97, 102, 48],
     [49, 50, 93, 51, 57, 65, 70, 97],
     [102, 46, 58, 93, 48, 57, 65, 70],
     [97, 102, 58, 93, 48, 57, 65, 70],
     [97, 102, 58, 93, 48, 57, 65, 70],
     [97, 102, 58, 93, 48, 49, 50, 51],
     [57, 65, 70, 97, 102, 46, 58, 93],
     [48, 57, 65, 70, 97, 102, 46, 58],
     [93, 48, 57, 65, 70, 97, 102, 46],
     [58, 93, 48, 57, 65, 70, 97, 102],
     [46, 53, 58, 93, 48, 52, 54, 57],
     [65, 70, 97, 102, 46, 58, 93, 48],
     [53, 54, 57, 65, 70, 97, 102, 46],
     [58, 93, 48, 57, 65, 70, 97, 102],
     [46, 58, 93, 48, 57, 65, 70, 97],
     [102, 58, 93, 48, 57, 65, 70, 97],
     [102, 58, 48, 49, 50, 93, 51, 57],
     [65, 70, 97, 102, 46, 58, 93, 48],
     [57, 65, 70, 97, 102, 58, 93, 48],
     [57, 65, 70, 97, 102, 58, 93, 48],
     [57, 65, 70, 97, 102, 58, 93, 48],
     [49, 50, 51, 57, 65, 70, 97, 102],
     [46, 58, 93, 48, 57, 65, 70, 97],
     [102, 46, 58, 93, 48, 57, 65, 70],
     [97, 102, 46, 58, 93, 48, 57, 65],
     [70, 97, 102, 46, 53, 58, 93, 48],
     [52, 54, 57, 65, 70, 97, 102, 46],
     [58, 93, 48, 53, 54, 57, 65, 70],
     [97, 102, 46, 58, 93, 48, 57, 65],
     [70, 97, 102, 46, 58, 93, 48, 57],
     [65, 70, 97, 102, 58, 93, 48, 57],
     [65, 70, 97, 102, 10, 9, 13, 32],
     [33, 37, 39, 67, 70, 73, 75, 76],
     [77, 80, 82, 83, 84, 86, 99, 102],
     [105, 107, 108, 109, 112, 114, 115, 116],
     [118, 126, 42, 43, 45, 46, 48, 57],
     [65, 90, 95, 122, 9, 32, 33, 37],
     [39, 58, 126, 42, 43, 45, 46, 48],
     [57, 65, 90, 95, 122, 9, 32, 58],
     [9, 13, 32, 33, 37, 39, 126, 42],
     [43, 45, 46, 48, 57, 65, 90, 95]]"

definition smp_trans_keys_4 :: "int list list" where
  "smp_trans_keys_4 =
    [[122, 10, 9, 13, 32, 33, 37, 39],
     [67, 70, 73, 75, 76, 77, 80, 82],
     [83, 84, 86, 99, 102, 105, 107, 108],
     [109, 112, 114, 115, 116, 118, 126, 42],
     [43, 45, 46, 48, 57, 65, 90, 95],
     [122, 9, 13, 32, 33, 37, 39, 126],
     [42, 43, 45, 46, 48, 57, 65, 90],
     [95, 122, 9, 13, 32, 33, 37, 39],
     [44, 126, 42, 46, 48, 57, 65, 90],
     [95, 122, 9, 13, 32, 44, 10, 9],
     [32, 9, 32, 44, 9, 13, 32, 33],
     [37, 39, 126, 42, 43, 45, 46, 48],
     [57, 65, 90, 95, 122, 10, 9, 32],
     [9, 32, 33, 37, 39, 126, 42, 43],
     [45, 46, 48, 57, 65, 90, 95, 122],
     [10, 9, 13, 32, 33, 37, 39, 67],
     [70, 73, 75, 76, 77, 80, 82, 83],
     [84, 86, 99, 102, 105, 107, 108, 109],
     [112, 114, 115, 116, 118, 126, 42, 43],
     [45, 46, 48, 57, 65, 90, 95, 122],
     [9, 32, 33, 37, 39, 58, 126, 42],
     [43, 45, 46, 48, 57, 65, 90, 95],
     [122, 9, 32, 58, 9, 13, 32, 48],
     [57, 10, 9, 32, 9, 32, 48, 57],
     [13, 48, 57, 13, 48, 57, 13, 48],
     [57, 13, 48, 57, 13, 48, 57, 13],
     [48, 57, 13, 48, 57, 13, 48, 57],
     [13, 9, 32, 33, 37, 39, 58, 65],
     [97, 126, 42, 43, 45, 46, 48, 57],
     [66, 90, 95, 122, 9, 32, 33, 37],
     [39, 58, 88, 120, 126, 42, 43, 45],
     [46, 48, 57, 65, 90, 95, 122, 9],
     [32, 33, 37, 39, 45, 46, 58, 126],
     [42, 43, 48, 57, 65, 90, 95, 122],
     [9, 32, 33, 37, 39, 58, 70, 102],
     [126, 42, 43, 45, 46, 48, 57, 65],
     [90, 95, 122, 9, 32, 33, 37, 39],
     [58, 79, 111, 126, 42, 43, 45, 46],
     [48, 57, 65, 90, 95, 122, 9, 32],
     [33, 37, 39, 58, 82, 114, 126, 42],
     [43, 45, 46, 48, 57, 65, 90, 95],
     [122, 9, 32, 33, 37, 39, 58, 87],
     [119, 126, 42, 43, 45, 46, 48, 57],
     [65, 90, 95, 122, 9, 32, 33, 37],
     [39, 58, 65, 97, 126, 42, 43, 45],
     [46, 48, 57, 66, 90, 95, 122, 9],
     [32, 33, 37, 39, 58, 82, 114, 126],
     [42, 43, 45, 46, 48, 57, 65, 90],
     [95, 122, 9, 32, 33, 37, 39, 58],
     [68, 100, 126, 42, 43, 45, 46, 48],
     [57, 65, 90, 95, 122, 9, 32, 33],
     [37, 39, 58, 83, 115, 126, 42, 43],
     [45, 46, 48, 57, 65, 90, 95, 122],
     [9, 32, 33, 37, 39, 58, 126, 42],
     [43, 45, 46, 48, 57, 65, 90, 95],
     [122, 9, 32, 58, 9, 13, 32, 48],
     [57, 10, 9, 32, 9, 32, 48, 57],
     [13, 48, 57, 13, 48, 57, 13, 48],
     [57, 13, 9, 32, 33, 37, 39, 58],
     [82, 114, 126, 42, 43, 45, 46, 48],
     [57, 65, 90, 95, 122, 9, 32, 33],
     [37, 39, 58, 79, 111, 126, 42, 43],
     [45, 46, 48, 57, 65, 90, 95, 122],
     [9, 32, 33, 37, 39, 58, 88, 120],
     [126, 42, 43, 45, 46, 48, 57, 65],
     [90, 95, 122, 9, 32, 33, 37, 39],
     [58, 89, 121, 126, 42, 43, 45, 46],
     [48, 57, 65, 90, 95, 122, 9, 32],
     [33, 37, 39, 45, 46, 58, 126, 42],
     [43, 48, 57, 65, 90, 95, 122, 9],
     [32, 33, 37, 39, 58, 82, 114, 126],
     [42, 43, 45, 46, 48, 57, 65, 90],
     [95, 122, 9, 32, 33, 37, 39, 58],
     [69, 101, 126, 42, 43, 45, 46, 48],
     [57, 65, 90, 95, 122, 9, 32, 33],
     [37, 39, 58, 81, 113, 126, 42, 43],
     [45, 46, 48, 57, 65, 90, 95, 122],
     [9, 32, 33, 37, 39, 58, 85, 117],
     [126, 42, 43, 45, 46, 48, 57, 65],
     [90, 95, 122, 9, 32, 33, 37, 39],
     [58, 73, 105, 126, 42, 43, 45, 46],
     [48, 57, 65, 90, 95, 122, 9, 32],
     [33, 37, 39, 58, 82, 114, 126, 42],
     [43, 45, 46, 48, 57, 65, 90, 95],
     [122, 9, 32, 33, 37, 39, 58, 69],
     [101, 126, 42, 43, 45, 46, 48, 57],
     [65, 90, 95, 122, 9, 32, 33, 37],
     [39, 58, 126, 42, 43, 45, 46, 48],
     [57, 65, 90, 95, 122, 9, 32, 58],
     [9, 13, 32, 33, 37, 39, 126, 42],
     [43, 45, 46, 48, 57, 65, 90, 95],
     [122, 10, 9, 32, 9, 32, 33, 37],
     [39, 126, 42, 43, 45, 46, 48, 57],
     [65, 90, 95, 122, 9, 13, 32, 33],
     [37, 39, 44, 126, 42, 46, 48, 57],
     [65, 90, 95, 122, 9, 13, 32, 44],
     [10, 9, 32, 9, 32, 44, 9, 13],
     [32, 33, 37, 39, 126, 42, 43, 45],
     [46, 48, 57, 65, 90, 95, 122, 10],
     [9, 32, 9, 32, 33, 37, 39, 126],
     [42, 43, 45, 46, 48, 57, 65, 90],
     [95, 122, 10, 9, 13, 32, 33, 37],
     [39, 67, 70, 73, 75, 76, 77, 80],
     [82, 83, 84, 86, 99, 102, 105, 107],
     [108, 109, 112, 114, 115, 116, 118, 126],
     [42, 43, 45, 46, 48, 57, 65, 90],
     [95, 122, 9, 32, 33, 37, 39, 58],
     [69, 79, 101, 111, 126, 42, 43, 45],
     [46, 48, 57, 65, 90, 95, 122, 9],
     [32, 33, 37, 39, 58, 81, 113, 126],
     [42, 43, 45, 46, 48, 57, 65, 90],
     [95, 122, 9, 32, 33, 37, 39, 58],
     [85, 117, 126, 42, 43, 45, 46, 48],
     [57, 65, 90, 95, 122, 9, 32, 33],
     [37, 39, 58, 73, 105, 126, 42, 43],
     [45, 46, 48, 57, 65, 90, 95, 122],
     [9, 32, 33, 37, 39, 58, 82, 114],
     [126, 42, 43, 45, 46, 48, 57, 65],
     [90, 95, 122, 9, 32, 33, 37, 39],
     [58, 69, 101, 126, 42, 43, 45, 46],
     [48, 57, 65, 90, 95, 122, 9, 32],
     [33, 37, 39, 58, 126, 42, 43, 45],
     [46, 48, 57, 65, 90, 95, 122, 9],
     [32, 58, 9, 13, 32, 33, 37, 39],
     [126, 42, 43, 45, 46, 48, 57, 65],
     [90, 95, 122, 10, 9, 32, 9, 32],
     [33, 37, 39, 126, 42, 43, 45, 46],
     [48, 57, 65, 90, 95, 122, 9, 13],
     [32, 33, 37, 39, 44, 126, 42, 46],
     [48, 57, 65, 90, 95, 122, 9, 13],
     [32, 44, 10, 9, 32, 9, 32, 44],
     [9, 13, 32, 33, 37, 39, 126, 42],
     [43, 45, 46, 48, 57, 65, 90, 95],
     [122, 10, 9, 32, 9, 32, 33, 37],
     [39, 126, 42, 43, 45, 46, 48, 57],
     [65, 90, 95, 122, 10, 9, 13, 32],
     [33, 37, 39, 67, 70, 73, 75, 76],
     [77, 80, 82, 83, 84, 86, 99, 102],
     [105, 107, 108, 109, 112, 114, 115, 116],
     [118, 126, 42, 43, 45, 46, 48, 57],
     [65, 90, 95, 122, 9, 32, 33, 37],
     [39, 58, 85, 117, 126, 42, 43, 45],
     [46, 48, 57, 65, 90, 95, 122, 9],
     [32, 33, 37, 39, 58, 80, 112, 126],
     [42, 43, 45, 46, 48, 57, 65, 90],
     [95, 122, 9, 32, 33, 37, 39, 58],
     [80, 112, 126, 42, 43, 45, 46, 48],
     [57, 65, 90, 95, 122, 9, 32, 33],
     [37, 39, 58, 79, 111, 126, 42, 43],
     [45, 46, 48, 57, 65, 90, 95, 122]]"

definition smp_trans_keys_5 :: "int list list" where
  "smp_trans_keys_5 =
    [[9, 32, 33, 37, 39, 58, 82, 114],
     [126, 42, 43, 45, 46, 48, 57, 65],
     [90, 95, 122, 9, 32, 33, 37, 39],
     [58, 84, 116, 126, 42, 43, 45, 46],
     [48, 57, 65, 90, 95, 122, 9, 32],
     [33, 37, 39, 58, 69, 101, 126, 42],
     [43, 45, 46, 48, 57, 65, 90, 95],
     [122, 9, 32, 33, 37, 39, 58, 68],
     [100, 126, 42, 43, 45, 46, 48, 57],
     [65, 90, 95, 122, 9, 32, 33, 37],
     [39, 58, 79, 111, 126, 42, 43, 45],
     [46, 48, 57, 65, 90, 95, 122, 9],
     [32, 58, 9, 13, 32, 33, 34, 37],
     [39, 60, 83, 84, 115, 116, 126, 42],
     [43, 45, 46, 48, 57, 65, 90, 95],
     [96, 97, 122, 10, 9, 32, 9, 13],
     [32, 33, 34, 37, 39, 60, 83, 84],
     [115, 116, 126, 42, 43, 45, 46, 48],
     [57, 65, 90, 95, 96, 97, 122, 10],
     [9, 32, 9, 32, 60, 83, 84, 115],
     [116, 65, 90, 97, 122, 43, 58, 45],
     [46, 48, 57, 65, 90, 97, 122, 33],
     [35, 37, 47, 58, 62, 64, 91, 95],
     [126, 36, 59, 61, 90, 97, 122, 33],
     [35, 37, 58, 62, 64, 95, 126, 36],
     [59, 61, 90, 97, 122, 33, 37, 58],
     [61, 64, 95, 126, 35, 59, 63, 90],
     [97, 122, 48, 57, 65, 70, 97, 102],
     [48, 57, 65, 70, 97, 102, 33, 37],
     [61, 64, 95, 126, 36, 46, 48, 57],
     [65, 90, 97, 122, 48, 57, 65, 70],
     [97, 102, 48, 57, 65, 70, 97, 102],
     [48, 49, 50, 91, 51, 57, 65, 90],
     [97, 122, 45, 46, 95, 48, 57, 65],
     [90, 97, 122, 45, 95, 48, 57, 65],
     [90, 97, 122, 45, 46, 95, 48, 57],
     [65, 90, 97, 122, 48, 57, 65, 90],
     [97, 122, 45, 46, 58, 62, 63, 95],
     [48, 57, 65, 90, 97, 122, 45, 95],
     [48, 57, 65, 90, 97, 122, 58, 62],
     [63, 48, 57, 65, 90, 97, 122, 48],
     [54, 49, 53, 55, 57, 48, 49, 57],
     [48, 49, 57, 49, 57, 62, 63, 9],
     [13, 32, 59, 10, 9, 13, 32, 33],
     [37, 39, 67, 70, 73, 75, 76, 77],
     [80, 82, 83, 84, 86, 99, 102, 105],
     [107, 108, 109, 112, 114, 115, 116, 118],
     [126, 42, 43, 45, 46, 48, 57, 65],
     [90, 95, 122, 9, 13, 32, 59, 10],
     [9, 13, 32, 33, 37, 39, 67, 70],
     [73, 75, 76, 77, 80, 82, 83, 84],
     [86, 99, 102, 105, 107, 108, 109, 112],
     [114, 115, 116, 118, 126, 42, 43, 45],
     [46, 48, 57, 65, 90, 95, 122, 9],
     [32, 59, 9, 13, 32, 33, 37, 39],
     [84, 116, 126, 42, 43, 45, 46, 48],
     [57, 65, 90, 95, 122, 10, 9, 32],
     [9, 32, 33, 37, 39, 84, 116, 126],
     [42, 43, 45, 46, 48, 57, 65, 90],
     [95, 122, 9, 13, 32, 33, 37, 39],
     [59, 61, 126, 42, 43, 45, 46, 48],
     [57, 65, 90, 95, 122, 9, 13, 32],
     [59, 61, 10, 9, 32, 9, 32, 59],
     [61, 9, 13, 32, 33, 34, 37, 39],
     [91, 126, 42, 43, 45, 46, 48, 57],
     [65, 90, 95, 122, 10, 9, 32, 9],
     [32, 33, 34, 37, 39, 91, 126, 42],
     [43, 45, 46, 48, 57, 65, 90, 95],
     [122, 9, 13, 32, 33, 37, 39, 59],
     [126, 42, 43, 45, 46, 48, 57, 65],
     [90, 95, 122, 9, 13, 32, 59, 10],
     [9, 32, 9, 13, 34, 92, -64, -33],
     [-32, -17, -16, -9, -8, -5, -4, -3],
     [32, 126, -128, -65, -128, -65, -128, -65],
     [-128, -65, -128, -65, 10, 9, 32, 9],
     [13, 32, 59, 0, 9, 11, 12, 14],
     [127, 58, 48, 57, 65, 70, 97, 102],
     [58, 48, 57, 65, 70, 97, 102, 58],
     [48, 57, 65, 70, 97, 102, 58, 48],
     [57, 65, 70, 97, 102, 58, 58, 48],
     [57, 65, 70, 97, 102, 58, 48, 57],
     [65, 70, 97, 102, 58, 48, 57, 65],
     [70, 97, 102, 58, 48, 57, 65, 70],
     [97, 102, 58, 58, 48, 57, 65, 70],
     [97, 102, 58, 48, 57, 65, 70, 97],
     [102, 58, 48, 57, 65, 70, 97, 102],
     [58, 48, 57, 65, 70, 97, 102, 58],
     [58, 48, 57, 65, 70, 97, 102, 58],
     [48, 57, 65, 70, 97, 102, 58, 48],
     [57, 65, 70, 97, 102, 58, 48, 57],
     [65, 70, 97, 102, 58, 58, 48, 57],
     [65, 70, 97, 102, 58, 48, 57, 65],
     [70, 97, 102, 58, 48, 57, 65, 70],
     [97, 102, 58, 48, 57, 65, 70, 97],
     [102, 58, 58, 48, 57, 65, 70, 97],
     [102, 58, 48, 57, 65, 70, 97, 102],
     [58, 48, 57, 65, 70, 97, 102, 58],
     [48, 57, 65, 70, 97, 102, 58, 48],
     [49, 50, 58, 51, 57, 65, 70, 97],
     [102, 46, 58, 48, 57, 65, 70, 97],
     [102, 48, 49, 50, 51, 57, 46, 48],
     [49, 50, 51, 57, 46, 48, 49, 50],
     [51, 57, 93, 93, 48, 57, 93, 48],
     [57, 53, 93, 48, 52, 54, 57, 93],
     [48, 53, 46, 48, 57, 46, 48, 57],
     [46, 53, 48, 52, 54, 57, 46, 48],
     [53, 46, 48, 57, 46, 48, 57, 46],
     [53, 48, 52, 54, 57, 46, 48, 53],
     [58, 48, 57, 65, 70, 97, 102, 58],
     [48, 57, 65, 70, 97, 102, 58, 58],
     [48, 57, 65, 70, 97, 102, 93, 48],
     [57, 65, 70, 97, 102, 93, 48, 57],
     [65, 70, 97, 102, 93, 48, 57, 65],
     [70, 97, 102, 46, 58, 48, 57, 65],
     [70, 97, 102, 46, 58, 48, 57, 65],
     [70, 97, 102, 46, 58, 48, 57, 65],
     [70, 97, 102, 46, 53, 58, 48, 52],
     [54, 57, 65, 70, 97, 102, 46, 58],
     [48, 53, 54, 57, 65, 70, 97, 102],
     [46, 58, 48, 57, 65, 70, 97, 102],
     [46, 58, 48, 57, 65, 70, 97, 102],
     [93, 48, 57, 65, 70, 97, 102, 58],
     [48, 57, 65, 70, 97, 102, 48, 49],
     [50, 93, 51, 57, 65, 70, 97, 102],
     [46, 58, 93, 48, 57, 65, 70, 97],
     [102, 58, 93, 48, 57, 65, 70, 97],
     [102, 58, 93, 48, 57, 65, 70, 97],
     [102, 58, 93, 48, 57, 65, 70, 97],
     [102, 46, 58, 93, 48, 57, 65, 70],
     [97, 102, 46, 58, 93, 48, 57, 65],
     [70, 97, 102, 46, 58, 93, 48, 57],
     [65, 70, 97, 102, 46, 53, 58, 93],
     [48, 52, 54, 57, 65, 70, 97, 102],
     [46, 58, 93, 48, 53, 54, 57, 65],
     [70, 97, 102, 46, 58, 93, 48, 57],
     [65, 70, 97, 102, 46, 58, 93, 48],
     [57, 65, 70, 97, 102, 58, 93, 48],
     [57, 65, 70, 97, 102, 48, 49, 50],
     [93, 51, 57, 65, 70, 97, 102, 46],
     [58, 93, 48, 57, 65, 70, 97, 102],
     [58, 93, 48, 57, 65, 70, 97, 102],
     [58, 93, 48, 57, 65, 70, 97, 102],
     [58, 93, 48, 49, 50, 51, 57, 65],
     [70, 97, 102, 46, 58, 93, 48, 57],
     [65, 70, 97, 102, 46, 58, 93, 48],
     [57, 65, 70, 97, 102, 46, 58, 93],
     [48, 57, 65, 70, 97, 102, 46, 53],
     [58, 93, 48, 52, 54, 57, 65, 70],
     [97, 102, 46, 58, 93, 48, 53, 54],
     [57, 65, 70, 97, 102, 46, 58, 93]]"

definition smp_trans_keys_6 :: "int list list" where
  "smp_trans_keys_6 =
    [[48, 57, 65, 70, 97, 102, 46, 58],
     [93, 48, 57, 65, 70, 97, 102, 58],
     [93, 48, 57, 65, 70, 97, 102, 48],
     [49, 50, 93, 51, 57, 65, 70, 97],
     [102, 46, 58, 93, 48, 57, 65, 70],
     [97, 102, 58, 93, 48, 57, 65, 70],
     [97, 102, 58, 93, 48, 57, 65, 70],
     [97, 102, 58, 93, 48, 49, 50, 51],
     [57, 65, 70, 97, 102, 46, 58, 93],
     [48, 57, 65, 70, 97, 102, 46, 58],
     [93, 48, 57, 65, 70, 97, 102, 46],
     [58, 93, 48, 57, 65, 70, 97, 102],
     [46, 53, 58, 93, 48, 52, 54, 57],
     [65, 70, 97, 102, 46, 58, 93, 48],
     [53, 54, 57, 65, 70, 97, 102, 46],
     [58, 93, 48, 57, 65, 70, 97, 102],
     [46, 58, 93, 48, 57, 65, 70, 97],
     [102, 58, 93, 48, 57, 65, 70, 97],
     [102, 48, 49, 50, 93, 51, 57, 65],
     [70, 97, 102, 46, 58, 93, 48, 57],
     [65, 70, 97, 102, 58, 93, 48, 57],
     [65, 70, 97, 102, 58, 93, 48, 57],
     [65, 70, 97, 102, 58, 93, 48, 49],
     [50, 51, 57, 65, 70, 97, 102, 46],
     [58, 93, 48, 57, 65, 70, 97, 102],
     [46, 58, 93, 48, 57, 65, 70, 97],
     [102, 46, 58, 93, 48, 57, 65, 70],
     [97, 102, 46, 53, 58, 93, 48, 52],
     [54, 57, 65, 70, 97, 102, 46, 58],
     [93, 48, 53, 54, 57, 65, 70, 97],
     [102, 46, 58, 93, 48, 57, 65, 70],
     [97, 102, 46, 58, 93, 48, 57, 65],
     [70, 97, 102, 58, 93, 48, 57, 65],
     [70, 97, 102, 48, 49, 50, 93, 51],
     [57, 65, 70, 97, 102, 46, 58, 93],
     [48, 57, 65, 70, 97, 102, 58, 93],
     [48, 57, 65, 70, 97, 102, 58, 93],
     [48, 57, 65, 70, 97, 102, 58, 93],
     [48, 49, 50, 51, 57, 65, 70, 97],
     [102, 46, 58, 93, 48, 57, 65, 70],
     [97, 102, 46, 58, 93, 48, 57, 65],
     [70, 97, 102, 46, 58, 93, 48, 57],
     [65, 70, 97, 102, 46, 53, 58, 93],
     [48, 52, 54, 57, 65, 70, 97, 102],
     [46, 58, 93, 48, 53, 54, 57, 65],
     [70, 97, 102, 46, 58, 93, 48, 57],
     [65, 70, 97, 102, 46, 58, 93, 48],
     [57, 65, 70, 97, 102, 58, 93, 48],
     [57, 65, 70, 97, 102, 58, 48, 49],
     [50, 93, 51, 57, 65, 70, 97, 102],
     [46, 58, 93, 48, 57, 65, 70, 97],
     [102, 58, 93, 48, 57, 65, 70, 97],
     [102, 58, 93, 48, 57, 65, 70, 97],
     [102, 58, 93, 48, 49, 50, 51, 57],
     [65, 70, 97, 102, 46, 58, 93, 48],
     [57, 65, 70, 97, 102, 46, 58, 93],
     [48, 57, 65, 70, 97, 102, 46, 58],
     [93, 48, 57, 65, 70, 97, 102, 46],
     [53, 58, 93, 48, 52, 54, 57, 65],
     [70, 97, 102, 46, 58, 93, 48, 53],
     [54, 57, 65, 70, 97, 102, 46, 58],
     [93, 48, 57, 65, 70, 97, 102, 46],
     [58, 93, 48, 57, 65, 70, 97, 102],
     [58, 93, 48, 57, 65, 70, 97, 102],
     [10, 9, 13, 32, 33, 37, 39, 67],
     [70, 73, 75, 76, 77, 80, 82, 83],
     [84, 86, 99, 102, 105, 107, 108, 109],
     [112, 114, 115, 116, 118, 126, 42, 43],
     [45, 46, 48, 57, 65, 90, 95, 122],
     [9, 32, 33, 37, 39, 58, 73, 105],
     [126, 42, 43, 45, 46, 48, 57, 65],
     [90, 95, 122, 9, 32, 58, 9, 13],
     [32, 33, 37, 39, 126, 42, 43, 45],
     [46, 48, 57, 65, 90, 95, 122, 10],
     [9, 32, 9, 32, 33, 37, 39, 126],
     [42, 43, 45, 46, 48, 57, 65, 90],
     [95, 122, 9, 13, 32, 33, 37, 39],
     [47, 126, 42, 43, 45, 57, 65, 90],
     [95, 122, 9, 13, 32, 47, 10, 9],
     [32, 9, 32, 47, 9, 13, 32, 33],
     [37, 39, 126, 42, 43, 45, 46, 48],
     [57, 65, 90, 95, 122, 10, 9, 32],
     [9, 32, 33, 37, 39, 126, 42, 43],
     [45, 46, 48, 57, 65, 90, 95, 122],
     [9, 13, 32, 33, 37, 39, 47, 126],
     [42, 43, 45, 57, 65, 90, 95, 122],
     [9, 13, 32, 47, 10, 9, 32, 9],
     [32, 47, 9, 13, 32, 33, 37, 39],
     [126, 42, 43, 45, 46, 48, 57, 65],
     [90, 95, 122, 10, 9, 32, 9, 32],
     [33, 37, 39, 126, 42, 43, 45, 46],
     [48, 57, 65, 90, 95, 122, 9, 13],
     [32, 33, 37, 39, 126, 42, 43, 45],
     [46, 48, 57, 65, 90, 95, 122, 9],
     [13, 32, 48, 49, 50, 91, 51, 57],
     [65, 90, 97, 122, 10, 9, 32, 9],
     [32, 48, 49, 50, 91, 51, 57, 65],
     [90, 97, 122, 45, 46, 95, 48, 57],
     [65, 90, 97, 122, 45, 95, 48, 57],
     [65, 90, 97, 122, 45, 46, 95, 48],
     [57, 65, 90, 97, 122, 48, 57, 65],
     [90, 97, 122, 9, 13, 32, 44, 45],
     [46, 58, 59, 95, 48, 57, 65, 90],
     [97, 122, 9, 13, 32, 44, 58, 59],
     [10, 9, 32, 9, 32, 44, 58, 59],
     [9, 13, 32, 33, 37, 39, 126, 42],
     [43, 45, 46, 48, 57, 65, 90, 95],
     [122, 10, 9, 32, 9, 32, 33, 37],
     [39, 126, 42, 43, 45, 46, 48, 57],
     [65, 90, 95, 122, 9, 13, 32, 48],
     [54, 49, 53, 55, 57, 10, 9, 32],
     [9, 32, 48, 54, 49, 53, 55, 57],
     [48, 49, 57, 48, 49, 57, 49, 57],
     [9, 13, 32, 44, 59, 9, 13, 32],
     [44, 59, 10, 9, 32, 9, 32, 44],
     [59, 9, 13, 32, 33, 37, 39, 65],
     [66, 82, 97, 98, 114, 126, 42, 43],
     [45, 46, 48, 57, 67, 90, 95, 122],
     [10, 9, 32, 9, 32, 33, 37, 39],
     [65, 66, 82, 97, 98, 114, 126, 42],
     [43, 45, 46, 48, 57, 67, 90, 95],
     [122, 9, 13, 32, 33, 37, 39, 44],
     [59, 61, 126, 42, 46, 48, 57, 65],
     [90, 95, 122, 9, 13, 32, 44, 59],
     [61, 10, 9, 32, 9, 32, 44, 59],
     [61, 9, 13, 32, 33, 34, 37, 39],
     [91, 126, 42, 43, 45, 46, 48, 57],
     [65, 90, 95, 122, 10, 9, 32, 9],
     [32, 33, 34, 37, 39, 91, 126, 42],
     [43, 45, 46, 48, 57, 65, 90, 95],
     [122, 9, 13, 32, 33, 37, 39, 44],
     [59, 126, 42, 46, 48, 57, 65, 90],
     [95, 122, 10, 9, 13, 32, 33, 37],
     [39, 67, 70, 73, 75, 76, 77, 80],
     [82, 83, 84, 86, 99, 102, 105, 107],
     [108, 109, 112, 114, 115, 116, 118, 126],
     [42, 43, 45, 46, 48, 57, 65, 90],
     [95, 122, 9, 13, 34, 92, -64, -33],
     [-32, -17, -16, -9, -8, -5, -4, -3],
     [32, 126, -128, -65, -128, -65, -128, -65],
     [-128, -65, -128, -65, 10, 9, 32, 9],
     [13, 32, 44, 59, 0, 9, 11, 12],
     [14, 127, 58, 48, 57, 65, 70, 97],
     [102, 58, 48, 57, 65, 70, 97, 102],
     [58, 48, 57, 65, 70, 97, 102, 58],
     [48, 57, 65, 70, 97, 102, 58, 58],
     [48, 57, 65, 70, 97, 102, 58, 48],
     [57, 65, 70, 97, 102, 58, 48, 57],
     [65, 70, 97, 102, 58, 48, 57, 65],
     [70, 97, 102, 58, 58, 48, 57, 65]]"

definition smp_trans_keys_7 :: "int list list" where
  "smp_trans_keys_7 =
    [[70, 97, 102, 58, 48, 57, 65, 70],
     [97, 102, 58, 48, 57, 65, 70, 97],
     [102, 58, 48, 57, 65, 70, 97, 102],
     [58, 58, 48, 57, 65, 70, 97, 102],
     [58, 48, 57, 65, 70, 97, 102, 58],
     [48, 57, 65, 70, 97, 102, 58, 48],
     [57, 65, 70, 97, 102, 58, 58, 48],
     [57, 65, 70, 97, 102, 58, 48, 57],
     [65, 70, 97, 102, 58, 48, 57, 65],
     [70, 97, 102, 58, 48, 57, 65, 70],
     [97, 102, 58, 58, 48, 57, 65, 70],
     [97, 102, 58, 48, 57, 65, 70, 97],
     [102, 58, 48, 57, 65, 70, 97, 102],
     [58, 48, 57, 65, 70, 97, 102, 58],
     [48, 49, 50, 58, 51, 57, 65, 70],
     [97, 102, 46, 58, 48, 57, 65, 70],
     [97, 102, 48, 49, 50, 51, 57, 46],
     [48, 49, 50, 51, 57, 46, 48, 49],
     [50, 51, 57, 93, 93, 48, 57, 93],
     [48, 57, 53, 93, 48, 52, 54, 57],
     [93, 48, 53, 46, 48, 57, 46, 48],
     [57, 46, 53, 48, 52, 54, 57, 46],
     [48, 53, 46, 48, 57, 46, 48, 57],
     [46, 53, 48, 52, 54, 57, 46, 48],
     [53, 58, 48, 57, 65, 70, 97, 102],
     [58, 48, 57, 65, 70, 97, 102, 58],
     [58, 48, 57, 65, 70, 97, 102, 93],
     [48, 57, 65, 70, 97, 102, 93, 48],
     [57, 65, 70, 97, 102, 93, 48, 57],
     [65, 70, 97, 102, 46, 58, 48, 57],
     [65, 70, 97, 102, 46, 58, 48, 57],
     [65, 70, 97, 102, 46, 58, 48, 57],
     [65, 70, 97, 102, 46, 53, 58, 48],
     [52, 54, 57, 65, 70, 97, 102, 46],
     [58, 48, 53, 54, 57, 65, 70, 97],
     [102, 46, 58, 48, 57, 65, 70, 97],
     [102, 46, 58, 48, 57, 65, 70, 97],
     [102, 93, 48, 57, 65, 70, 97, 102],
     [58, 48, 57, 65, 70, 97, 102, 48],
     [49, 50, 93, 51, 57, 65, 70, 97],
     [102, 46, 58, 93, 48, 57, 65, 70],
     [97, 102, 58, 93, 48, 57, 65, 70],
     [97, 102, 58, 93, 48, 57, 65, 70],
     [97, 102, 58, 93, 48, 57, 65, 70],
     [97, 102, 46, 58, 93, 48, 57, 65],
     [70, 97, 102, 46, 58, 93, 48, 57],
     [65, 70, 97, 102, 46, 58, 93, 48],
     [57, 65, 70, 97, 102, 46, 53, 58],
     [93, 48, 52, 54, 57, 65, 70, 97],
     [102, 46, 58, 93, 48, 53, 54, 57],
     [65, 70, 97, 102, 46, 58, 93, 48],
     [57, 65, 70, 97, 102, 46, 58, 93],
     [48, 57, 65, 70, 97, 102, 58, 93],
     [48, 57, 65, 70, 97, 102, 48, 49],
     [50, 93, 51, 57, 65, 70, 97, 102],
     [46, 58, 93, 48, 57, 65, 70, 97],
     [102, 58, 93, 48, 57, 65, 70, 97],
     [102, 58, 93, 48, 57, 65, 70, 97],
     [102, 58, 93, 48, 49, 50, 51, 57],
     [65, 70, 97, 102, 46, 58, 93, 48],
     [57, 65, 70, 97, 102, 46, 58, 93],
     [48, 57, 65, 70, 97, 102, 46, 58],
     [93, 48, 57, 65, 70, 97, 102, 46],
     [53, 58, 93, 48, 52, 54, 57, 65],
     [70, 97, 102, 46, 58, 93, 48, 53],
     [54, 57, 65, 70, 97, 102, 46, 58],
     [93, 48, 57, 65, 70, 97, 102, 46],
     [58, 93, 48, 57, 65, 70, 97, 102],
     [58, 93, 48, 57, 65, 70, 97, 102],
     [48, 49, 50, 93, 51, 57, 65, 70],
     [97, 102, 46, 58, 93, 48, 57, 65],
     [70, 97, 102, 58, 93, 48, 57, 65],
     [70, 97, 102, 58, 93, 48, 57, 65],
     [70, 97, 102, 58, 93, 48, 49, 50],
     [51, 57, 65, 70, 97, 102, 46, 58],
     [93, 48, 57, 65, 70, 97, 102, 46],
     [58, 93, 48, 57, 65, 70, 97, 102],
     [46, 58, 93, 48, 57, 65, 70, 97],
     [102, 46, 53, 58, 93, 48, 52, 54],
     [57, 65, 70, 97, 102, 46, 58, 93],
     [48, 53, 54, 57, 65, 70, 97, 102],
     [46, 58, 93, 48, 57, 65, 70, 97],
     [102, 46, 58, 93, 48, 57, 65, 70],
     [97, 102, 58, 93, 48, 57, 65, 70],
     [97, 102, 48, 49, 50, 93, 51, 57],
     [65, 70, 97, 102, 46, 58, 93, 48],
     [57, 65, 70, 97, 102, 58, 93, 48],
     [57, 65, 70, 97, 102, 58, 93, 48],
     [57, 65, 70, 97, 102, 58, 93, 48],
     [49, 50, 51, 57, 65, 70, 97, 102],
     [46, 58, 93, 48, 57, 65, 70, 97],
     [102, 46, 58, 93, 48, 57, 65, 70],
     [97, 102, 46, 58, 93, 48, 57, 65],
     [70, 97, 102, 46, 53, 58, 93, 48],
     [52, 54, 57, 65, 70, 97, 102, 46],
     [58, 93, 48, 53, 54, 57, 65, 70],
     [97, 102, 46, 58, 93, 48, 57, 65],
     [70, 97, 102, 46, 58, 93, 48, 57],
     [65, 70, 97, 102, 58, 93, 48, 57],
     [65, 70, 97, 102, 48, 49, 50, 93],
     [51, 57, 65, 70, 97, 102, 46, 58],
     [93, 48, 57, 65, 70, 97, 102, 58],
     [93, 48, 57, 65, 70, 97, 102, 58],
     [93, 48, 57, 65, 70, 97, 102, 58],
     [93, 48, 49, 50, 51, 57, 65, 70],
     [97, 102, 46, 58, 93, 48, 57, 65],
     [70, 97, 102, 46, 58, 93, 48, 57],
     [65, 70, 97, 102, 46, 58, 93, 48],
     [57, 65, 70, 97, 102, 46, 53, 58],
     [93, 48, 52, 54, 57, 65, 70, 97],
     [102, 46, 58, 93, 48, 53, 54, 57],
     [65, 70, 97, 102, 46, 58, 93, 48],
     [57, 65, 70, 97, 102, 46, 58, 93],
     [48, 57, 65, 70, 97, 102, 58, 93],
     [48, 57, 65, 70, 97, 102, 58, 48],
     [49, 50, 93, 51, 57, 65, 70, 97],
     [102, 46, 58, 93, 48, 57, 65, 70],
     [97, 102, 58, 93, 48, 57, 65, 70],
     [97, 102, 58, 93, 48, 57, 65, 70],
     [97, 102, 58, 93, 48, 49, 50, 51],
     [57, 65, 70, 97, 102, 46, 58, 93],
     [48, 57, 65, 70, 97, 102, 46, 58],
     [93, 48, 57, 65, 70, 97, 102, 46],
     [58, 93, 48, 57, 65, 70, 97, 102],
     [46, 53, 58, 93, 48, 52, 54, 57],
     [65, 70, 97, 102, 46, 58, 93, 48],
     [53, 54, 57, 65, 70, 97, 102, 46],
     [58, 93, 48, 57, 65, 70, 97, 102],
     [46, 58, 93, 48, 57, 65, 70, 97],
     [102, 58, 93, 48, 57, 65, 70, 97],
     [102, 10, 9, 13, 32, 33, 37, 39],
     [67, 70, 73, 75, 76, 77, 80, 82],
     [83, 84, 86, 99, 102, 105, 107, 108],
     [109, 112, 114, 115, 116, 118, 126, 42],
     [43, 45, 46, 48, 57, 65, 90, 95],
     [122, 9, 13, 32, 33, 37, 39, 44],
     [59, 61, 76, 108, 126, 42, 46, 48],
     [57, 65, 90, 95, 122, 9, 13, 32],
     [33, 37, 39, 44, 59, 61, 73, 105],
     [126, 42, 46, 48, 57, 65, 90, 95],
     [122, 9, 13, 32, 33, 37, 39, 44],
     [59, 61, 65, 97, 126, 42, 46, 48],
     [57, 66, 90, 95, 122, 9, 13, 32],
     [33, 37, 39, 44, 59, 61, 83, 115],
     [126, 42, 46, 48, 57, 65, 90, 95],
     [122, 9, 13, 32, 33, 37, 39, 44],
     [59, 61, 126, 42, 46, 48, 57, 65],
     [90, 95, 122, 9, 13, 32, 44, 59],
     [61, 10, 9, 32, 9, 32, 44, 59],
     [61, 9, 13, 32, 33, 37, 39, 126]]"

definition smp_trans_keys_8 :: "int list list" where
  "smp_trans_keys_8 =
    [[42, 43, 45, 46, 48, 57, 65, 90],
     [95, 122, 10, 9, 32, 9, 32, 33],
     [37, 39, 126, 42, 43, 45, 46, 48],
     [57, 65, 90, 95, 122, 9, 13, 32],
     [33, 37, 39, 44, 59, 126, 42, 46],
     [48, 57, 65, 90, 95, 122, 10, 9],
     [13, 32, 33, 37, 39, 67, 70, 73],
     [75, 76, 77, 80, 82, 83, 84, 86],
     [99, 102, 105, 107, 108, 109, 112, 114],
     [115, 116, 118, 126, 42, 43, 45, 46],
     [48, 57, 65, 90, 95, 122, 9, 13],
     [32, 33, 37, 39, 44, 59, 61, 82],
     [114, 126, 42, 46, 48, 57, 65, 90],
     [95, 122, 9, 13, 32, 33, 37, 39],
     [44, 59, 61, 65, 97, 126, 42, 46],
     [48, 57, 66, 90, 95, 122, 9, 13],
     [32, 33, 37, 39, 44, 59, 61, 78],
     [110, 126, 42, 46, 48, 57, 65, 90],
     [95, 122, 9, 13, 32, 33, 37, 39],
     [44, 59, 61, 67, 99, 126, 42, 46],
     [48, 57, 65, 90, 95, 122, 9, 13],
     [32, 33, 37, 39, 44, 59, 61, 72],
     [104, 126, 42, 46, 48, 57, 65, 90],
     [95, 122, 9, 13, 32, 33, 37, 39],
     [61, 126, 42, 43, 45, 46, 48, 57],
     [65, 90, 95, 122, 9, 13, 32, 61],
     [10, 9, 32, 9, 32, 61, 9, 13],
     [32, 33, 37, 39, 122, 126, 42, 43],
     [45, 46, 48, 57, 65, 90, 95, 121],
     [10, 9, 32, 9, 32, 33, 37, 39],
     [122, 126, 42, 43, 45, 46, 48, 57],
     [65, 90, 95, 121, 9, 13, 32, 33],
     [37, 39, 44, 59, 126, 42, 46, 48],
     [57, 65, 90, 95, 122, 9, 13, 32],
     [33, 37, 39, 44, 57, 59, 126, 42],
     [46, 48, 56, 65, 90, 95, 122, 9],
     [13, 32, 33, 37, 39, 44, 59, 104],
     [126, 42, 46, 48, 57, 65, 90, 95],
     [122, 9, 13, 32, 33, 37, 39, 44],
     [59, 71, 126, 42, 46, 48, 57, 65],
     [90, 95, 122, 9, 13, 32, 33, 37],
     [39, 44, 52, 59, 126, 42, 46, 48],
     [57, 65, 90, 95, 122, 9, 13, 32],
     [33, 37, 39, 44, 59, 98, 126, 42],
     [46, 48, 57, 65, 90, 95, 122, 9],
     [13, 32, 33, 37, 39, 44, 59, 75],
     [126, 42, 46, 48, 57, 65, 90, 95],
     [122, 9, 13, 32, 33, 37, 39, 44],
     [59, 126, 42, 46, 48, 57, 65, 90],
     [95, 122, 9, 13, 32, 33, 37, 39],
     [44, 59, 61, 69, 80, 101, 112, 126],
     [42, 46, 48, 57, 65, 90, 95, 122],
     [9, 13, 32, 33, 37, 39, 44, 59],
     [61, 67, 99, 126, 42, 46, 48, 57],
     [65, 90, 95, 122, 9, 13, 32, 33],
     [37, 39, 44, 59, 61, 69, 101, 126],
     [42, 46, 48, 57, 65, 90, 95, 122],
     [9, 13, 32, 33, 37, 39, 44, 59],
     [61, 73, 105, 126, 42, 46, 48, 57],
     [65, 90, 95, 122, 9, 13, 32, 33],
     [37, 39, 44, 59, 61, 86, 118, 126],
     [42, 46, 48, 57, 65, 90, 95, 122],
     [9, 13, 32, 33, 37, 39, 44, 59],
     [61, 69, 101, 126, 42, 46, 48, 57],
     [65, 90, 95, 122, 9, 13, 32, 33],
     [37, 39, 44, 59, 61, 68, 100, 126],
     [42, 46, 48, 57, 65, 90, 95, 122],
     [9, 13, 32, 33, 37, 39, 61, 126],
     [42, 43, 45, 46, 48, 57, 65, 90],
     [95, 122, 9, 13, 32, 61, 10, 9],
     [32, 9, 32, 61, 9, 13, 32, 48],
     [49, 50, 58, 51, 57, 65, 70, 97],
     [102, 10, 9, 32, 9, 32, 48, 49],
     [50, 58, 51, 57, 65, 70, 97, 102],
     [46, 58, 48, 57, 65, 70, 97, 102],
     [48, 49, 50, 51, 57, 46, 48, 49],
     [50, 51, 57, 46, 48, 49, 50, 51],
     [57, 9, 13, 32, 44, 59, 9, 13],
     [32, 44, 59, 48, 57, 9, 13, 32],
     [44, 59, 48, 57, 9, 13, 32, 44],
     [53, 59, 48, 52, 54, 57, 9, 13],
     [32, 44, 59, 48, 53, 46, 48, 57],
     [46, 48, 57, 46, 53, 48, 52, 54],
     [57, 46, 48, 53, 46, 48, 57, 46],
     [48, 57, 46, 53, 48, 52, 54, 57],
     [46, 48, 53, 58, 48, 57, 65, 70],
     [97, 102, 58, 48, 57, 65, 70, 97],
     [102, 58, 58, 48, 57, 65, 70, 97],
     [102, 58, 48, 57, 65, 70, 97, 102],
     [58, 48, 57, 65, 70, 97, 102, 58],
     [48, 57, 65, 70, 97, 102, 58, 58],
     [48, 57, 65, 70, 97, 102, 58, 48],
     [57, 65, 70, 97, 102, 58, 48, 57],
     [65, 70, 97, 102, 58, 48, 57, 65],
     [70, 97, 102, 58, 58, 48, 57, 65],
     [70, 97, 102, 58, 48, 57, 65, 70],
     [97, 102, 58, 48, 57, 65, 70, 97],
     [102, 58, 48, 57, 65, 70, 97, 102],
     [58, 58, 48, 57, 65, 70, 97, 102],
     [58, 48, 57, 65, 70, 97, 102, 58],
     [48, 57, 65, 70, 97, 102, 58, 48],
     [57, 65, 70, 97, 102, 58, 58, 48],
     [57, 65, 70, 97, 102, 58, 48, 57],
     [65, 70, 97, 102, 58, 48, 57, 65],
     [70, 97, 102, 58, 48, 57, 65, 70],
     [97, 102, 58, 48, 49, 50, 58, 51],
     [57, 65, 70, 97, 102, 46, 58, 48],
     [57, 65, 70, 97, 102, 58, 48, 57],
     [65, 70, 97, 102, 58, 48, 57, 65],
     [70, 97, 102, 58, 58, 48, 57, 65],
     [70, 97, 102, 9, 13, 32, 44, 59],
     [48, 57, 65, 70, 97, 102, 9, 13],
     [32, 44, 59, 48, 57, 65, 70, 97],
     [102, 9, 13, 32, 44, 59, 48, 57],
     [65, 70, 97, 102, 46, 58, 48, 57],
     [65, 70, 97, 102, 46, 58, 48, 57],
     [65, 70, 97, 102, 46, 58, 48, 57],
     [65, 70, 97, 102, 46, 53, 58, 48],
     [52, 54, 57, 65, 70, 97, 102, 46],
     [58, 48, 53, 54, 57, 65, 70, 97],
     [102, 46, 58, 48, 57, 65, 70, 97],
     [102, 46, 58, 48, 57, 65, 70, 97],
     [102, 9, 13, 32, 44, 59, 48, 57],
     [65, 70, 97, 102, 58, 48, 57, 65],
     [70, 97, 102, 9, 13, 32, 44, 48],
     [49, 50, 59, 51, 57, 65, 70, 97],
     [102, 9, 13, 32, 44, 46, 58, 59],
     [48, 57, 65, 70, 97, 102, 9, 13],
     [32, 44, 58, 59, 48, 57, 65, 70],
     [97, 102, 9, 13, 32, 44, 58, 59],
     [48, 57, 65, 70, 97, 102, 9, 13],
     [32, 44, 58, 59, 48, 57, 65, 70],
     [97, 102, 9, 13, 32, 44, 46, 58],
     [59, 48, 57, 65, 70, 97, 102, 9],
     [13, 32, 44, 46, 58, 59, 48, 57],
     [65, 70, 97, 102, 9, 13, 32, 44],
     [46, 58, 59, 48, 57, 65, 70, 97],
     [102, 9, 13, 32, 44, 46, 53, 58],
     [59, 48, 52, 54, 57, 65, 70, 97],
     [102, 9, 13, 32, 44, 46, 58, 59],
     [48, 53, 54, 57, 65, 70, 97, 102],
     [9, 13, 32, 44, 46, 58, 59, 48],
     [57, 65, 70, 97, 102, 9, 13, 32],
     [44, 46, 58, 59, 48, 57, 65, 70],
     [97, 102, 9, 13, 32, 44, 58, 59],
     [48, 57, 65, 70, 97, 102, 9, 13],
     [32, 44, 48, 49, 50, 59, 51, 57],
     [65, 70, 97, 102, 9, 13, 32, 44],
     [46, 58, 59, 48, 57, 65, 70, 97],
     [102, 9, 13, 32, 44, 58, 59, 48]]"

definition smp_trans_keys_9 :: "int list list" where
  "smp_trans_keys_9 =
    [[57, 65, 70, 97, 102, 9, 13, 32],
     [44, 58, 59, 48, 57, 65, 70, 97],
     [102, 9, 13, 32, 44, 58, 59, 48],
     [49, 50, 51, 57, 65, 70, 97, 102],
     [9, 13, 32, 44, 46, 58, 59, 48],
     [57, 65, 70, 97, 102, 9, 13, 32],
     [44, 46, 58, 59, 48, 57, 65, 70],
     [97, 102, 9, 13, 32, 44, 46, 58],
     [59, 48, 57, 65, 70, 97, 102, 9],
     [13, 32, 44, 46, 53, 58, 59, 48],
     [52, 54, 57, 65, 70, 97, 102, 9],
     [13, 32, 44, 46, 58, 59, 48, 53],
     [54, 57, 65, 70, 97, 102, 9, 13],
     [32, 44, 46, 58, 59, 48, 57, 65],
     [70, 97, 102, 9, 13, 32, 44, 46],
     [58, 59, 48, 57, 65, 70, 97, 102],
     [9, 13, 32, 44, 58, 59, 48, 57],
     [65, 70, 97, 102, 9, 13, 32, 44],
     [48, 49, 50, 59, 51, 57, 65, 70],
     [97, 102, 9, 13, 32, 44, 46, 58],
     [59, 48, 57, 65, 70, 97, 102, 9],
     [13, 32, 44, 58, 59, 48, 57, 65],
     [70, 97, 102, 9, 13, 32, 44, 58],
     [59, 48, 57, 65, 70, 97, 102, 9],
     [13, 32, 44, 58, 59, 48, 49, 50],
     [51, 57, 65, 70, 97, 102, 9, 13],
     [32, 44, 46, 58, 59, 48, 57, 65],
     [70, 97, 102, 9, 13, 32, 44, 46],
     [58, 59, 48, 57, 65, 70, 97, 102],
     [9, 13, 32, 44, 46, 58, 59, 48],
     [57, 65, 70, 97, 102, 9, 13, 32],
     [44, 46, 53, 58, 59, 48, 52, 54],
     [57, 65, 70, 97, 102, 9, 13, 32],
     [44, 46, 58, 59, 48, 53, 54, 57],
     [65, 70, 97, 102, 9, 13, 32, 44],
     [46, 58, 59, 48, 57, 65, 70, 97],
     [102, 9, 13, 32, 44, 46, 58, 59],
     [48, 57, 65, 70, 97, 102, 9, 13],
     [32, 44, 58, 59, 48, 57, 65, 70],
     [97, 102, 9, 13, 32, 44, 48, 49],
     [50, 59, 51, 57, 65, 70, 97, 102],
     [9, 13, 32, 44, 46, 58, 59, 48],
     [57, 65, 70, 97, 102, 9, 13, 32],
     [44, 58, 59, 48, 57, 65, 70, 97],
     [102, 9, 13, 32, 44, 58, 59, 48],
     [57, 65, 70, 97, 102, 9, 13, 32],
     [44, 58, 59, 48, 49, 50, 51, 57],
     [65, 70, 97, 102, 9, 13, 32, 44],
     [46, 58, 59, 48, 57, 65, 70, 97],
     [102, 9, 13, 32, 44, 46, 58, 59],
     [48, 57, 65, 70, 97, 102, 9, 13],
     [32, 44, 46, 58, 59, 48, 57, 65],
     [70, 97, 102, 9, 13, 32, 44, 46],
     [53, 58, 59, 48, 52, 54, 57, 65],
     [70, 97, 102, 9, 13, 32, 44, 46],
     [58, 59, 48, 53, 54, 57, 65, 70],
     [97, 102, 9, 13, 32, 44, 46, 58],
     [59, 48, 57, 65, 70, 97, 102, 9],
     [13, 32, 44, 46, 58, 59, 48, 57],
     [65, 70, 97, 102, 9, 13, 32, 44],
     [58, 59, 48, 57, 65, 70, 97, 102],
     [9, 13, 32, 44, 48, 49, 50, 59],
     [51, 57, 65, 70, 97, 102, 9, 13],
     [32, 44, 46, 58, 59, 48, 57, 65],
     [70, 97, 102, 9, 13, 32, 44, 58],
     [59, 48, 57, 65, 70, 97, 102, 9],
     [13, 32, 44, 58, 59, 48, 57, 65],
     [70, 97, 102, 9, 13, 32, 44, 58],
     [59, 48, 49, 50, 51, 57, 65, 70],
     [97, 102, 9, 13, 32, 44, 46, 58],
     [59, 48, 57, 65, 70, 97, 102, 9],
     [13, 32, 44, 46, 58, 59, 48, 57],
     [65, 70, 97, 102, 9, 13, 32, 44],
     [46, 58, 59, 48, 57, 65, 70, 97],
     [102, 9, 13, 32, 44, 46, 53, 58],
     [59, 48, 52, 54, 57, 65, 70, 97],
     [102, 9, 13, 32, 44, 46, 58, 59],
     [48, 53, 54, 57, 65, 70, 97, 102],
     [9, 13, 32, 44, 46, 58, 59, 48],
     [57, 65, 70, 97, 102, 9, 13, 32],
     [44, 46, 58, 59, 48, 57, 65, 70],
     [97, 102, 9, 13, 32, 44, 58, 59],
     [48, 57, 65, 70, 97, 102, 46, 58],
     [48, 57, 65, 70, 97, 102, 46, 58],
     [48, 57, 65, 70, 97, 102, 46, 58],
     [48, 57, 65, 70, 97, 102, 46, 53],
     [58, 48, 52, 54, 57, 65, 70, 97],
     [102, 46, 58, 48, 53, 54, 57, 65],
     [70, 97, 102, 46, 58, 48, 57, 65],
     [70, 97, 102, 46, 58, 48, 57, 65],
     [70, 97, 102, 58, 9, 13, 32, 44],
     [48, 49, 50, 59, 51, 57, 65, 70],
     [97, 102, 9, 13, 32, 44, 46, 58],
     [59, 48, 57, 65, 70, 97, 102, 9],
     [13, 32, 44, 58, 59, 48, 57, 65],
     [70, 97, 102, 9, 13, 32, 44, 58],
     [59, 48, 57, 65, 70, 97, 102, 9],
     [13, 32, 44, 58, 59, 48, 49, 50],
     [51, 57, 65, 70, 97, 102, 9, 13],
     [32, 44, 46, 58, 59, 48, 57, 65],
     [70, 97, 102, 9, 13, 32, 44, 46],
     [58, 59, 48, 57, 65, 70, 97, 102],
     [9, 13, 32, 44, 46, 58, 59, 48],
     [57, 65, 70, 97, 102, 9, 13, 32],
     [44, 46, 53, 58, 59, 48, 52, 54],
     [57, 65, 70, 97, 102, 9, 13, 32],
     [44, 46, 58, 59, 48, 53, 54, 57],
     [65, 70, 97, 102, 9, 13, 32, 44],
     [46, 58, 59, 48, 57, 65, 70, 97],
     [102, 9, 13, 32, 44, 46, 58, 59],
     [48, 57, 65, 70, 97, 102, 9, 13],
     [32, 44, 58, 59, 48, 57, 65, 70],
     [97, 102, 58, 48, 57, 65, 70, 97],
     [102, 9, 13, 32, 33, 37, 39, 44],
     [59, 61, 79, 111, 126, 42, 46, 48],
     [57, 65, 90, 95, 122, 9, 13, 32],
     [33, 37, 39, 44, 59, 61, 82, 114],
     [126, 42, 46, 48, 57, 65, 90, 95],
     [122, 9, 13, 32, 33, 37, 39, 44],
     [59, 61, 84, 116, 126, 42, 46, 48],
     [57, 65, 90, 95, 122, 9, 13, 32],
     [33, 37, 39, 44, 59, 61, 126, 42],
     [46, 48, 57, 65, 90, 95, 122, 9],
     [13, 32, 44, 59, 61, 10, 9, 32],
     [9, 32, 44, 59, 61, 9, 13, 32],
     [48, 54, 49, 53, 55, 57, 10, 9],
     [32, 9, 32, 48, 54, 49, 53, 55],
     [57, 48, 49, 57, 48, 49, 57, 49],
     [57, 9, 13, 32, 44, 59, 9, 13],
     [32, 44, 59, 48, 57, 9, 13, 32],
     [44, 59, 48, 57, 9, 13, 32, 44],
     [59, 48, 57, 9, 13, 32, 44, 59],
     [48, 57, 9, 13, 32, 44, 53, 59],
     [48, 52, 54, 57, 9, 13, 32, 44],
     [53, 59, 48, 52, 54, 57, 9, 13],
     [32, 44, 51, 59, 48, 50, 52, 57],
     [9, 13, 32, 44, 59, 48, 53, 10],
     [9, 13, 32, 33, 37, 39, 67, 70],
     [73, 75, 76, 77, 80, 82, 83, 84],
     [86, 99, 102, 105, 107, 108, 109, 112],
     [114, 115, 116, 118, 126, 42, 43, 45],
     [46, 48, 57, 65, 90, 95, 122, 9],
     [13, 32, 44, 59, 48, 57, 9, 13],
     [32, 44, 59, 48, 57, 9, 13, 32],
     [44, 59, 48, 57, 9, 13, 32, 44],
     [59, 48, 57, 9, 13, 32, 44, 53],
     [59, 48, 52, 54, 57, 9, 13, 32],
     [44, 53, 59, 48, 52, 54, 57, 9],
     [13, 32, 44, 51, 59, 48, 50, 52],
     [57, 9, 13, 32, 44, 59, 48, 53]]"

definition smp_trans_keys_10 :: "int list list" where
  "smp_trans_keys_10 =
    [[10, 9, 13, 32, 33, 37, 39, 67],
     [70, 73, 75, 76, 77, 80, 82, 83],
     [84, 86, 99, 102, 105, 107, 108, 109],
     [112, 114, 115, 116, 118, 126, 42, 43],
     [45, 46, 48, 57, 65, 90, 95, 122],
     [45, 95, 48, 57, 65, 90, 97, 122],
     [9, 13, 32, 44, 58, 59, 48, 57],
     [65, 90, 97, 122, 48, 49, 50, 51],
     [57, 65, 90, 97, 122, 45, 46, 95],
     [48, 57, 65, 90, 97, 122, 48, 49],
     [50, 51, 57, 65, 90, 97, 122, 45],
     [46, 95, 48, 57, 65, 90, 97, 122],
     [48, 49, 50, 51, 57, 65, 90, 97],
     [122, 9, 13, 32, 44, 45, 46, 58],
     [59, 95, 48, 57, 65, 90, 97, 122],
     [9, 13, 32, 44, 45, 46, 58, 59],
     [95, 48, 57, 65, 90, 97, 122, 9],
     [13, 32, 44, 45, 46, 58, 59, 95],
     [48, 57, 65, 90, 97, 122, 9, 13],
     [32, 44, 45, 46, 53, 58, 59, 95],
     [48, 52, 54, 57, 65, 90, 97, 122],
     [9, 13, 32, 44, 45, 46, 58, 59],
     [95, 48, 53, 54, 57, 65, 90, 97],
     [122, 45, 46, 95, 48, 57, 65, 90],
     [97, 122, 45, 46, 95, 48, 57, 65],
     [90, 97, 122, 45, 46, 53, 95, 48],
     [52, 54, 57, 65, 90, 97, 122, 45],
     [46, 95, 48, 53, 54, 57, 65, 90],
     [97, 122, 45, 46, 95, 48, 57, 65],
     [90, 97, 122, 45, 46, 95, 48, 57],
     [65, 90, 97, 122, 45, 46, 53, 95],
     [48, 52, 54, 57, 65, 90, 97, 122],
     [45, 46, 95, 48, 53, 54, 57, 65],
     [90, 97, 122, 45, 46, 95, 48, 57],
     [65, 90, 97, 122, 45, 46, 95, 48],
     [57, 65, 90, 97, 122, 45, 46, 53],
     [95, 48, 52, 54, 57, 65, 90, 97],
     [122, 45, 46, 95, 48, 53, 54, 57],
     [65, 90, 97, 122, 58, 48, 57, 65],
     [70, 97, 102, 58, 48, 57, 65, 70],
     [97, 102, 58, 48, 57, 65, 70, 97],
     [102, 58, 48, 57, 65, 70, 97, 102],
     [58, 58, 48, 57, 65, 70, 97, 102],
     [58, 48, 57, 65, 70, 97, 102, 58],
     [48, 57, 65, 70, 97, 102, 58, 48],
     [57, 65, 70, 97, 102, 58, 58, 48],
     [57, 65, 70, 97, 102, 58, 48, 57],
     [65, 70, 97, 102, 58, 48, 57, 65],
     [70, 97, 102, 58, 48, 57, 65, 70],
     [97, 102, 58, 58, 48, 57, 65, 70],
     [97, 102, 58, 48, 57, 65, 70, 97],
     [102, 58, 48, 57, 65, 70, 97, 102],
     [58, 48, 57, 65, 70, 97, 102, 58],
     [58, 48, 57, 65, 70, 97, 102, 58],
     [48, 57, 65, 70, 97, 102, 58, 48],
     [57, 65, 70, 97, 102, 58, 48, 57],
     [65, 70, 97, 102, 58, 58, 48, 57],
     [65, 70, 97, 102, 58, 48, 57, 65],
     [70, 97, 102, 58, 48, 57, 65, 70],
     [97, 102, 58, 48, 57, 65, 70, 97],
     [102, 58, 48, 49, 50, 58, 51, 57],
     [65, 70, 97, 102, 46, 58, 48, 57],
     [65, 70, 97, 102, 48, 49, 50, 51],
     [57, 46, 48, 49, 50, 51, 57, 46],
     [48, 49, 50, 51, 57, 93, 9, 13],
     [32, 44, 58, 59, 93, 48, 57, 93],
     [48, 57, 53, 93, 48, 52, 54, 57],
     [93, 48, 53, 46, 48, 57, 46, 48],
     [57, 46, 53, 48, 52, 54, 57, 46],
     [48, 53, 46, 48, 57, 46, 48, 57],
     [46, 53, 48, 52, 54, 57, 46, 48],
     [53, 58, 48, 57, 65, 70, 97, 102],
     [58, 48, 57, 65, 70, 97, 102, 58],
     [58, 48, 57, 65, 70, 97, 102, 93],
     [48, 57, 65, 70, 97, 102, 93, 48],
     [57, 65, 70, 97, 102, 93, 48, 57],
     [65, 70, 97, 102, 46, 58, 48, 57],
     [65, 70, 97, 102, 46, 58, 48, 57],
     [65, 70, 97, 102, 46, 58, 48, 57],
     [65, 70, 97, 102, 46, 53, 58, 48],
     [52, 54, 57, 65, 70, 97, 102, 46],
     [58, 48, 53, 54, 57, 65, 70, 97],
     [102, 46, 58, 48, 57, 65, 70, 97],
     [102, 46, 58, 48, 57, 65, 70, 97],
     [102, 93, 48, 57, 65, 70, 97, 102],
     [58, 48, 57, 65, 70, 97, 102, 48],
     [49, 50, 93, 51, 57, 65, 70, 97],
     [102, 46, 58, 93, 48, 57, 65, 70],
     [97, 102, 58, 93, 48, 57, 65, 70],
     [97, 102, 58, 93, 48, 57, 65, 70],
     [97, 102, 58, 93, 48, 57, 65, 70],
     [97, 102, 46, 58, 93, 48, 57, 65],
     [70, 97, 102, 46, 58, 93, 48, 57],
     [65, 70, 97, 102, 46, 58, 93, 48],
     [57, 65, 70, 97, 102, 46, 53, 58],
     [93, 48, 52, 54, 57, 65, 70, 97],
     [102, 46, 58, 93, 48, 53, 54, 57],
     [65, 70, 97, 102, 46, 58, 93, 48],
     [57, 65, 70, 97, 102, 46, 58, 93],
     [48, 57, 65, 70, 97, 102, 58, 93],
     [48, 57, 65, 70, 97, 102, 48, 49],
     [50, 93, 51, 57, 65, 70, 97, 102],
     [46, 58, 93, 48, 57, 65, 70, 97],
     [102, 58, 93, 48, 57, 65, 70, 97],
     [102, 58, 93, 48, 57, 65, 70, 97],
     [102, 58, 93, 48, 49, 50, 51, 57],
     [65, 70, 97, 102, 46, 58, 93, 48],
     [57, 65, 70, 97, 102, 46, 58, 93],
     [48, 57, 65, 70, 97, 102, 46, 58],
     [93, 48, 57, 65, 70, 97, 102, 46],
     [53, 58, 93, 48, 52, 54, 57, 65],
     [70, 97, 102, 46, 58, 93, 48, 53],
     [54, 57, 65, 70, 97, 102, 46, 58],
     [93, 48, 57, 65, 70, 97, 102, 46],
     [58, 93, 48, 57, 65, 70, 97, 102],
     [58, 93, 48, 57, 65, 70, 97, 102],
     [48, 49, 50, 93, 51, 57, 65, 70],
     [97, 102, 46, 58, 93, 48, 57, 65],
     [70, 97, 102, 58, 93, 48, 57, 65],
     [70, 97, 102, 58, 93, 48, 57, 65],
     [70, 97, 102, 58, 93, 48, 49, 50],
     [51, 57, 65, 70, 97, 102, 46, 58],
     [93, 48, 57, 65, 70, 97, 102, 46],
     [58, 93, 48, 57, 65, 70, 97, 102],
     [46, 58, 93, 48, 57, 65, 70, 97],
     [102, 46, 53, 58, 93, 48, 52, 54],
     [57, 65, 70, 97, 102, 46, 58, 93],
     [48, 53, 54, 57, 65, 70, 97, 102],
     [46, 58, 93, 48, 57, 65, 70, 97],
     [102, 46, 58, 93, 48, 57, 65, 70],
     [97, 102, 58, 93, 48, 57, 65, 70],
     [97, 102, 48, 49, 50, 93, 51, 57],
     [65, 70, 97, 102, 46, 58, 93, 48],
     [57, 65, 70, 97, 102, 58, 93, 48],
     [57, 65, 70, 97, 102, 58, 93, 48],
     [57, 65, 70, 97, 102, 58, 93, 48],
     [49, 50, 51, 57, 65, 70, 97, 102],
     [46, 58, 93, 48, 57, 65, 70, 97],
     [102, 46, 58, 93, 48, 57, 65, 70],
     [97, 102, 46, 58, 93, 48, 57, 65],
     [70, 97, 102, 46, 53, 58, 93, 48],
     [52, 54, 57, 65, 70, 97, 102, 46],
     [58, 93, 48, 53, 54, 57, 65, 70],
     [97, 102, 46, 58, 93, 48, 57, 65],
     [70, 97, 102, 46, 58, 93, 48, 57],
     [65, 70, 97, 102, 58, 93, 48, 57],
     [65, 70, 97, 102, 48, 49, 50, 93],
     [51, 57, 65, 70, 97, 102, 46, 58],
     [93, 48, 57, 65, 70, 97, 102, 58],
     [93, 48, 57, 65, 70, 97, 102, 58]]"

definition smp_trans_keys_11 :: "int list list" where
  "smp_trans_keys_11 =
    [[93, 48, 57, 65, 70, 97, 102, 58],
     [93, 48, 49, 50, 51, 57, 65, 70],
     [97, 102, 46, 58, 93, 48, 57, 65],
     [70, 97, 102, 46, 58, 93, 48, 57],
     [65, 70, 97, 102, 46, 58, 93, 48],
     [57, 65, 70, 97, 102, 46, 53, 58],
     [93, 48, 52, 54, 57, 65, 70, 97],
     [102, 46, 58, 93, 48, 53, 54, 57],
     [65, 70, 97, 102, 46, 58, 93, 48],
     [57, 65, 70, 97, 102, 46, 58, 93],
     [48, 57, 65, 70, 97, 102, 58, 93],
     [48, 57, 65, 70, 97, 102, 58, 48],
     [49, 50, 93, 51, 57, 65, 70, 97],
     [102, 46, 58, 93, 48, 57, 65, 70],
     [97, 102, 58, 93, 48, 57, 65, 70],
     [97, 102, 58, 93, 48, 57, 65, 70],
     [97, 102, 58, 93, 48, 49, 50, 51],
     [57, 65, 70, 97, 102, 46, 58, 93],
     [48, 57, 65, 70, 97, 102, 46, 58],
     [93, 48, 57, 65, 70, 97, 102, 46],
     [58, 93, 48, 57, 65, 70, 97, 102],
     [46, 53, 58, 93, 48, 52, 54, 57],
     [65, 70, 97, 102, 46, 58, 93, 48],
     [53, 54, 57, 65, 70, 97, 102, 46],
     [58, 93, 48, 57, 65, 70, 97, 102],
     [46, 58, 93, 48, 57, 65, 70, 97],
     [102, 58, 93, 48, 57, 65, 70, 97],
     [102, 9, 32, 33, 37, 39, 58, 65],
     [97, 126, 42, 43, 45, 46, 48, 57],
     [66, 90, 95, 122, 9, 32, 33, 37],
     [39, 58, 126, 42, 43, 45, 46, 48],
     [57, 65, 90, 95, 122, 9, 13, 32],
     [33, 37, 39, 59, 61, 65, 97, 126],
     [42, 43, 45, 46, 48, 57, 66, 90],
     [95, 122, 9, 13, 32, 33, 37, 39],
     [59, 61, 71, 103, 126, 42, 43, 45],
     [46, 48, 57, 65, 90, 95, 122, 9],
     [13, 32, 33, 37, 39, 59, 61, 126],
     [42, 43, 45, 46, 48, 57, 65, 90],
     [95, 122, 9, 13, 32, 59, 61, 10],
     [9, 32, 9, 32, 59, 61, 9, 13],
     [32, 33, 34, 37, 39, 91, 126, 42],
     [43, 45, 46, 48, 57, 65, 90, 95],
     [122, 10, 9, 32, 9, 32, 33, 34],
     [37, 39, 91, 126, 42, 43, 45, 46],
     [48, 57, 65, 90, 95, 122, 9, 13],
     [32, 33, 37, 39, 59, 126, 42, 43],
     [45, 46, 48, 57, 65, 90, 95, 122],
     [10, 9, 13, 32, 33, 37, 39, 67],
     [70, 73, 75, 76, 77, 80, 82, 83],
     [84, 86, 99, 102, 105, 107, 108, 109],
     [112, 114, 115, 116, 118, 126, 42, 43],
     [45, 46, 48, 57, 65, 90, 95, 122],
     [33, 37, 62, 95, 126, 36, 59, 61],
     [90, 97, 122, 48, 57, 65, 70, 97],
     [102, 48, 57, 65, 70, 97, 102, 62],
     [63, 48, 57, 62, 63, 48, 57, 62],
     [63, 48, 57, 62, 63, 48, 57, 53],
     [62, 63, 48, 52, 54, 57, 53, 62],
     [63, 48, 52, 54, 57, 51, 62, 63],
     [48, 50, 52, 57, 62, 63, 48, 53],
     [48, 49, 50, 51, 57, 65, 90, 97],
     [122, 45, 46, 95, 48, 57, 65, 90],
     [97, 122, 48, 49, 50, 51, 57, 65],
     [90, 97, 122, 45, 46, 95, 48, 57],
     [65, 90, 97, 122, 48, 49, 50, 51],
     [57, 65, 90, 97, 122, 45, 46, 58],
     [62, 63, 95, 48, 57, 65, 90, 97],
     [122, 45, 46, 58, 62, 63, 95, 48],
     [57, 65, 90, 97, 122, 45, 46, 58],
     [62, 63, 95, 48, 57, 65, 90, 97],
     [122, 45, 46, 53, 58, 62, 63, 95],
     [48, 52, 54, 57, 65, 90, 97, 122],
     [45, 46, 58, 62, 63, 95, 48, 53],
     [54, 57, 65, 90, 97, 122, 45, 46],
     [95, 48, 57, 65, 90, 97, 122, 45],
     [46, 95, 48, 57, 65, 90, 97, 122],
     [45, 46, 53, 95, 48, 52, 54, 57],
     [65, 90, 97, 122, 45, 46, 95, 48],
     [53, 54, 57, 65, 90, 97, 122, 45],
     [46, 95, 48, 57, 65, 90, 97, 122],
     [45, 46, 95, 48, 57, 65, 90, 97],
     [122, 45, 46, 53, 95, 48, 52, 54],
     [57, 65, 90, 97, 122, 45, 46, 95],
     [48, 53, 54, 57, 65, 90, 97, 122],
     [45, 46, 95, 48, 57, 65, 90, 97],
     [122, 45, 46, 95, 48, 57, 65, 90],
     [97, 122, 45, 46, 53, 95, 48, 52],
     [54, 57, 65, 90, 97, 122, 45, 46],
     [95, 48, 53, 54, 57, 65, 90, 97],
     [122, 58, 48, 57, 65, 70, 97, 102],
     [58, 48, 57, 65, 70, 97, 102, 58],
     [48, 57, 65, 70, 97, 102, 58, 48],
     [57, 65, 70, 97, 102, 58, 58, 48],
     [57, 65, 70, 97, 102, 58, 48, 57],
     [65, 70, 97, 102, 58, 48, 57, 65],
     [70, 97, 102, 58, 48, 57, 65, 70],
     [97, 102, 58, 58, 48, 57, 65, 70],
     [97, 102, 58, 48, 57, 65, 70, 97],
     [102, 58, 48, 57, 65, 70, 97, 102],
     [58, 48, 57, 65, 70, 97, 102, 58],
     [58, 48, 57, 65, 70, 97, 102, 58],
     [48, 57, 65, 70, 97, 102, 58, 48],
     [57, 65, 70, 97, 102, 58, 48, 57],
     [65, 70, 97, 102, 58, 58, 48, 57],
     [65, 70, 97, 102, 58, 48, 57, 65],
     [70, 97, 102, 58, 48, 57, 65, 70],
     [97, 102, 58, 48, 57, 65, 70, 97],
     [102, 58, 58, 48, 57, 65, 70, 97],
     [102, 58, 48, 57, 65, 70, 97, 102],
     [58, 48, 57, 65, 70, 97, 102, 58],
     [48, 57, 65, 70, 97, 102, 58, 48],
     [49, 50, 58, 51, 57, 65, 70, 97],
     [102, 46, 58, 48, 57, 65, 70, 97],
     [102, 48, 49, 50, 51, 57, 46, 48],
     [49, 50, 51, 57, 46, 48, 49, 50],
     [51, 57, 93, 58, 62, 63, 93, 48],
     [57, 93, 48, 57, 53, 93, 48, 52],
     [54, 57, 93, 48, 53, 46, 48, 57],
     [46, 48, 57, 46, 53, 48, 52, 54],
     [57, 46, 48, 53, 46, 48, 57, 46],
     [48, 57, 46, 53, 48, 52, 54, 57],
     [46, 48, 53, 58, 48, 57, 65, 70],
     [97, 102, 58, 48, 57, 65, 70, 97],
     [102, 58, 58, 48, 57, 65, 70, 97],
     [102, 93, 48, 57, 65, 70, 97, 102],
     [93, 48, 57, 65, 70, 97, 102, 93],
     [48, 57, 65, 70, 97, 102, 46, 58],
     [48, 57, 65, 70, 97, 102, 46, 58],
     [48, 57, 65, 70, 97, 102, 46, 58],
     [48, 57, 65, 70, 97, 102, 46, 53],
     [58, 48, 52, 54, 57, 65, 70, 97],
     [102, 46, 58, 48, 53, 54, 57, 65],
     [70, 97, 102, 46, 58, 48, 57, 65],
     [70, 97, 102, 46, 58, 48, 57, 65],
     [70, 97, 102, 93, 48, 57, 65, 70],
     [97, 102, 58, 48, 57, 65, 70, 97],
     [102, 48, 49, 50, 93, 51, 57, 65],
     [70, 97, 102, 46, 58, 93, 48, 57],
     [65, 70, 97, 102, 58, 93, 48, 57],
     [65, 70, 97, 102, 58, 93, 48, 57],
     [65, 70, 97, 102, 58, 93, 48, 57],
     [65, 70, 97, 102, 46, 58, 93, 48],
     [57, 65, 70, 97, 102, 46, 58, 93],
     [48, 57, 65, 70, 97, 102, 46, 58],
     [93, 48, 57, 65, 70, 97, 102, 46],
     [53, 58, 93, 48, 52, 54, 57, 65],
     [70, 97, 102, 46, 58, 93, 48, 53],
     [54, 57, 65, 70, 97, 102, 46, 58],
     [93, 48, 57, 65, 70, 97, 102, 46]]"

definition smp_trans_keys_12 :: "int list list" where
  "smp_trans_keys_12 =
    [[58, 93, 48, 57, 65, 70, 97, 102],
     [58, 93, 48, 57, 65, 70, 97, 102],
     [48, 49, 50, 93, 51, 57, 65, 70],
     [97, 102, 46, 58, 93, 48, 57, 65],
     [70, 97, 102, 58, 93, 48, 57, 65],
     [70, 97, 102, 58, 93, 48, 57, 65],
     [70, 97, 102, 58, 93, 48, 49, 50],
     [51, 57, 65, 70, 97, 102, 46, 58],
     [93, 48, 57, 65, 70, 97, 102, 46],
     [58, 93, 48, 57, 65, 70, 97, 102],
     [46, 58, 93, 48, 57, 65, 70, 97],
     [102, 46, 53, 58, 93, 48, 52, 54],
     [57, 65, 70, 97, 102, 46, 58, 93],
     [48, 53, 54, 57, 65, 70, 97, 102],
     [46, 58, 93, 48, 57, 65, 70, 97],
     [102, 46, 58, 93, 48, 57, 65, 70],
     [97, 102, 58, 93, 48, 57, 65, 70],
     [97, 102, 48, 49, 50, 93, 51, 57],
     [65, 70, 97, 102, 46, 58, 93, 48],
     [57, 65, 70, 97, 102, 58, 93, 48],
     [57, 65, 70, 97, 102, 58, 93, 48],
     [57, 65, 70, 97, 102, 58, 93, 48],
     [49, 50, 51, 57, 65, 70, 97, 102],
     [46, 58, 93, 48, 57, 65, 70, 97],
     [102, 46, 58, 93, 48, 57, 65, 70],
     [97, 102, 46, 58, 93, 48, 57, 65],
     [70, 97, 102, 46, 53, 58, 93, 48],
     [52, 54, 57, 65, 70, 97, 102, 46],
     [58, 93, 48, 53, 54, 57, 65, 70],
     [97, 102, 46, 58, 93, 48, 57, 65],
     [70, 97, 102, 46, 58, 93, 48, 57],
     [65, 70, 97, 102, 58, 93, 48, 57],
     [65, 70, 97, 102, 48, 49, 50, 93],
     [51, 57, 65, 70, 97, 102, 46, 58],
     [93, 48, 57, 65, 70, 97, 102, 58],
     [93, 48, 57, 65, 70, 97, 102, 58],
     [93, 48, 57, 65, 70, 97, 102, 58],
     [93, 48, 49, 50, 51, 57, 65, 70],
     [97, 102, 46, 58, 93, 48, 57, 65],
     [70, 97, 102, 46, 58, 93, 48, 57],
     [65, 70, 97, 102, 46, 58, 93, 48],
     [57, 65, 70, 97, 102, 46, 53, 58],
     [93, 48, 52, 54, 57, 65, 70, 97],
     [102, 46, 58, 93, 48, 53, 54, 57],
     [65, 70, 97, 102, 46, 58, 93, 48],
     [57, 65, 70, 97, 102, 46, 58, 93],
     [48, 57, 65, 70, 97, 102, 58, 93],
     [48, 57, 65, 70, 97, 102, 48, 49],
     [50, 93, 51, 57, 65, 70, 97, 102],
     [46, 58, 93, 48, 57, 65, 70, 97],
     [102, 58, 93, 48, 57, 65, 70, 97],
     [102, 58, 93, 48, 57, 65, 70, 97],
     [102, 58, 93, 48, 49, 50, 51, 57],
     [65, 70, 97, 102, 46, 58, 93, 48],
     [57, 65, 70, 97, 102, 46, 58, 93],
     [48, 57, 65, 70, 97, 102, 46, 58],
     [93, 48, 57, 65, 70, 97, 102, 46],
     [53, 58, 93, 48, 52, 54, 57, 65],
     [70, 97, 102, 46, 58, 93, 48, 53],
     [54, 57, 65, 70, 97, 102, 46, 58],
     [93, 48, 57, 65, 70, 97, 102, 46],
     [58, 93, 48, 57, 65, 70, 97, 102],
     [58, 93, 48, 57, 65, 70, 97, 102],
     [58, 48, 49, 50, 93, 51, 57, 65],
     [70, 97, 102, 46, 58, 93, 48, 57],
     [65, 70, 97, 102, 58, 93, 48, 57],
     [65, 70, 97, 102, 58, 93, 48, 57],
     [65, 70, 97, 102, 58, 93, 48, 49],
     [50, 51, 57, 65, 70, 97, 102, 46],
     [58, 93, 48, 57, 65, 70, 97, 102],
     [46, 58, 93, 48, 57, 65, 70, 97],
     [102, 46, 58, 93, 48, 57, 65, 70],
     [97, 102, 46, 53, 58, 93, 48, 52],
     [54, 57, 65, 70, 97, 102, 46, 58],
     [93, 48, 53, 54, 57, 65, 70, 97],
     [102, 46, 58, 93, 48, 57, 65, 70],
     [97, 102, 46, 58, 93, 48, 57, 65],
     [70, 97, 102, 58, 93, 48, 57, 65],
     [70, 97, 102, 48, 57, 65, 70, 97],
     [102, 48, 57, 65, 70, 97, 102, 33],
     [37, 47, 62, 63, 64, 95, 126, 36],
     [57, 58, 59, 61, 90, 97, 122, 48],
     [57, 65, 70, 97, 102, 48, 57, 65],
     [70, 97, 102, 33, 37, 62, 91, 95],
     [126, 36, 59, 61, 90, 97, 122, 33],
     [35, 37, 47, 58, 62, 64, 95, 126],
     [36, 59, 61, 90, 97, 122, 33, 35],
     [37, 58, 62, 64, 91, 95, 126, 36],
     [59, 61, 90, 97, 122, 33, 35, 37],
     [58, 62, 64, 95, 126, 36, 59, 61],
     [90, 97, 122, 33, 37, 58, 61, 64],
     [95, 126, 35, 59, 63, 90, 97, 122],
     [48, 57, 65, 70, 97, 102, 48, 57],
     [65, 70, 97, 102, 33, 37, 61, 64],
     [95, 126, 36, 46, 48, 57, 65, 90],
     [97, 122, 48, 57, 65, 70, 97, 102],
     [48, 57, 65, 70, 97, 102, 48, 49],
     [50, 91, 51, 57, 65, 90, 97, 122],
     [45, 46, 95, 48, 57, 65, 90, 97],
     [122, 45, 95, 48, 57, 65, 90, 97],
     [122, 45, 46, 95, 48, 57, 65, 90],
     [97, 122, 48, 57, 65, 90, 97, 122],
     [45, 46, 47, 58, 62, 63, 95, 48],
     [57, 65, 90, 97, 122, 45, 95, 48],
     [57, 65, 90, 97, 122, 47, 58, 62],
     [63, 48, 57, 65, 90, 97, 122, 48],
     [54, 49, 53, 55, 57, 48, 49, 57],
     [48, 49, 57, 49, 57, 47, 62, 63],
     [47, 62, 63, 48, 57, 47, 62, 63],
     [48, 57, 47, 62, 63, 48, 57, 47],
     [62, 63, 48, 57, 47, 53, 62, 63],
     [48, 52, 54, 57, 47, 53, 62, 63],
     [48, 52, 54, 57, 47, 51, 62, 63],
     [48, 50, 52, 57, 47, 62, 63, 48],
     [53, 48, 49, 50, 51, 57, 65, 90],
     [97, 122, 45, 46, 95, 48, 57, 65],
     [90, 97, 122, 48, 49, 50, 51, 57],
     [65, 90, 97, 122, 45, 46, 95, 48],
     [57, 65, 90, 97, 122, 48, 49, 50],
     [51, 57, 65, 90, 97, 122, 45, 46],
     [47, 58, 62, 63, 95, 48, 57, 65],
     [90, 97, 122, 45, 46, 47, 58, 62],
     [63, 95, 48, 57, 65, 90, 97, 122],
     [45, 46, 47, 58, 62, 63, 95, 48],
     [57, 65, 90, 97, 122, 45, 46, 47],
     [53, 58, 62, 63, 95, 48, 52, 54],
     [57, 65, 90, 97, 122, 45, 46, 47],
     [58, 62, 63, 95, 48, 53, 54, 57],
     [65, 90, 97, 122, 45, 46, 95, 48],
     [57, 65, 90, 97, 122, 45, 46, 95],
     [48, 57, 65, 90, 97, 122, 45, 46],
     [53, 95, 48, 52, 54, 57, 65, 90],
     [97, 122, 45, 46, 95, 48, 53, 54],
     [57, 65, 90, 97, 122, 45, 46, 95],
     [48, 57, 65, 90, 97, 122, 45, 46],
     [95, 48, 57, 65, 90, 97, 122, 45],
     [46, 53, 95, 48, 52, 54, 57, 65],
     [90, 97, 122, 45, 46, 95, 48, 53],
     [54, 57, 65, 90, 97, 122, 45, 46],
     [95, 48, 57, 65, 90, 97, 122, 45],
     [46, 95, 48, 57, 65, 90, 97, 122],
     [45, 46, 53, 95, 48, 52, 54, 57],
     [65, 90, 97, 122, 45, 46, 95, 48],
     [53, 54, 57, 65, 90, 97, 122, 58],
     [48, 57, 65, 70, 97, 102, 58, 48],
     [57, 65, 70, 97, 102, 58, 48, 57],
     [65, 70, 97, 102, 58, 48, 57, 65],
     [70, 97, 102, 58, 58, 48, 57, 65],
     [70, 97, 102, 58, 48, 57, 65, 70],
     [97, 102, 58, 48, 57, 65, 70, 97]]"

definition smp_trans_keys_13 :: "int list list" where
  "smp_trans_keys_13 =
    [[102, 58, 48, 57, 65, 70, 97, 102],
     [58, 58, 48, 57, 65, 70, 97, 102],
     [58, 48, 57, 65, 70, 97, 102, 58],
     [48, 57, 65, 70, 97, 102, 58, 48],
     [57, 65, 70, 97, 102, 58, 58, 48],
     [57, 65, 70, 97, 102, 58, 48, 57],
     [65, 70, 97, 102, 58, 48, 57, 65],
     [70, 97, 102, 58, 48, 57, 65, 70],
     [97, 102, 58, 58, 48, 57, 65, 70],
     [97, 102, 58, 48, 57, 65, 70, 97],
     [102, 58, 48, 57, 65, 70, 97, 102],
     [58, 48, 57, 65, 70, 97, 102, 58],
     [58, 48, 57, 65, 70, 97, 102, 58],
     [48, 57, 65, 70, 97, 102, 58, 48],
     [57, 65, 70, 97, 102, 58, 48, 57],
     [65, 70, 97, 102, 58, 48, 49, 50],
     [58, 51, 57, 65, 70, 97, 102, 46],
     [58, 48, 57, 65, 70, 97, 102, 48],
     [49, 50, 51, 57, 46, 48, 49, 50],
     [51, 57, 46, 48, 49, 50, 51, 57],
     [93, 47, 58, 62, 63, 93, 48, 57],
     [93, 48, 57, 53, 93, 48, 52, 54],
     [57, 93, 48, 53, 46, 48, 57, 46],
     [48, 57, 46, 53, 48, 52, 54, 57],
     [46, 48, 53, 46, 48, 57, 46, 48],
     [57, 46, 53, 48, 52, 54, 57, 46],
     [48, 53, 58, 48, 57, 65, 70, 97],
     [102, 58, 48, 57, 65, 70, 97, 102],
     [58, 58, 48, 57, 65, 70, 97, 102],
     [93, 48, 57, 65, 70, 97, 102, 93],
     [48, 57, 65, 70, 97, 102, 93, 48],
     [57, 65, 70, 97, 102, 46, 58, 48],
     [57, 65, 70, 97, 102, 46, 58, 48],
     [57, 65, 70, 97, 102, 46, 58, 48],
     [57, 65, 70, 97, 102, 46, 53, 58],
     [48, 52, 54, 57, 65, 70, 97, 102],
     [46, 58, 48, 53, 54, 57, 65, 70],
     [97, 102, 46, 58, 48, 57, 65, 70],
     [97, 102, 46, 58, 48, 57, 65, 70],
     [97, 102, 93, 48, 57, 65, 70, 97],
     [102, 58, 48, 57, 65, 70, 97, 102],
     [48, 49, 50, 93, 51, 57, 65, 70],
     [97, 102, 46, 58, 93, 48, 57, 65],
     [70, 97, 102, 58, 93, 48, 57, 65],
     [70, 97, 102, 58, 93, 48, 57, 65],
     [70, 97, 102, 58, 93, 48, 57, 65],
     [70, 97, 102, 46, 58, 93, 48, 57],
     [65, 70, 97, 102, 46, 58, 93, 48],
     [57, 65, 70, 97, 102, 46, 58, 93],
     [48, 57, 65, 70, 97, 102, 46, 53],
     [58, 93, 48, 52, 54, 57, 65, 70],
     [97, 102, 46, 58, 93, 48, 53, 54],
     [57, 65, 70, 97, 102, 46, 58, 93],
     [48, 57, 65, 70, 97, 102, 46, 58],
     [93, 48, 57, 65, 70, 97, 102, 58],
     [93, 48, 57, 65, 70, 97, 102, 48],
     [49, 50, 93, 51, 57, 65, 70, 97],
     [102, 46, 58, 93, 48, 57, 65, 70],
     [97, 102, 58, 93, 48, 57, 65, 70],
     [97, 102, 58, 93, 48, 57, 65, 70],
     [97, 102, 58, 93, 48, 49, 50, 51],
     [57, 65, 70, 97, 102, 46, 58, 93],
     [48, 57, 65, 70, 97, 102, 46, 58],
     [93, 48, 57, 65, 70, 97, 102, 46],
     [58, 93, 48, 57, 65, 70, 97, 102],
     [46, 53, 58, 93, 48, 52, 54, 57],
     [65, 70, 97, 102, 46, 58, 93, 48],
     [53, 54, 57, 65, 70, 97, 102, 46],
     [58, 93, 48, 57, 65, 70, 97, 102],
     [46, 58, 93, 48, 57, 65, 70, 97],
     [102, 58, 93, 48, 57, 65, 70, 97],
     [102, 48, 49, 50, 93, 51, 57, 65],
     [70, 97, 102, 46, 58, 93, 48, 57],
     [65, 70, 97, 102, 58, 93, 48, 57],
     [65, 70, 97, 102, 58, 93, 48, 57],
     [65, 70, 97, 102, 58, 93, 48, 49],
     [50, 51, 57, 65, 70, 97, 102, 46],
     [58, 93, 48, 57, 65, 70, 97, 102],
     [46, 58, 93, 48, 57, 65, 70, 97],
     [102, 46, 58, 93, 48, 57, 65, 70],
     [97, 102, 46, 53, 58, 93, 48, 52],
     [54, 57, 65, 70, 97, 102, 46, 58],
     [93, 48, 53, 54, 57, 65, 70, 97],
     [102, 46, 58, 93, 48, 57, 65, 70],
     [97, 102, 46, 58, 93, 48, 57, 65],
     [70, 97, 102, 58, 93, 48, 57, 65],
     [70, 97, 102, 48, 49, 50, 93, 51],
     [57, 65, 70, 97, 102, 46, 58, 93],
     [48, 57, 65, 70, 97, 102, 58, 93],
     [48, 57, 65, 70, 97, 102, 58, 93],
     [48, 57, 65, 70, 97, 102, 58, 93],
     [48, 49, 50, 51, 57, 65, 70, 97],
     [102, 46, 58, 93, 48, 57, 65, 70],
     [97, 102, 46, 58, 93, 48, 57, 65],
     [70, 97, 102, 46, 58, 93, 48, 57],
     [65, 70, 97, 102, 46, 53, 58, 93],
     [48, 52, 54, 57, 65, 70, 97, 102],
     [46, 58, 93, 48, 53, 54, 57, 65],
     [70, 97, 102, 46, 58, 93, 48, 57],
     [65, 70, 97, 102, 46, 58, 93, 48],
     [57, 65, 70, 97, 102, 58, 93, 48],
     [57, 65, 70, 97, 102, 48, 49, 50],
     [93, 51, 57, 65, 70, 97, 102, 46],
     [58, 93, 48, 57, 65, 70, 97, 102],
     [58, 93, 48, 57, 65, 70, 97, 102],
     [58, 93, 48, 57, 65, 70, 97, 102],
     [58, 93, 48, 49, 50, 51, 57, 65],
     [70, 97, 102, 46, 58, 93, 48, 57],
     [65, 70, 97, 102, 46, 58, 93, 48],
     [57, 65, 70, 97, 102, 46, 58, 93],
     [48, 57, 65, 70, 97, 102, 46, 53],
     [58, 93, 48, 52, 54, 57, 65, 70],
     [97, 102, 46, 58, 93, 48, 53, 54],
     [57, 65, 70, 97, 102, 46, 58, 93],
     [48, 57, 65, 70, 97, 102, 46, 58],
     [93, 48, 57, 65, 70, 97, 102, 58],
     [93, 48, 57, 65, 70, 97, 102, 58],
     [48, 49, 50, 93, 51, 57, 65, 70],
     [97, 102, 46, 58, 93, 48, 57, 65],
     [70, 97, 102, 58, 93, 48, 57, 65],
     [70, 97, 102, 58, 93, 48, 57, 65],
     [70, 97, 102, 58, 93, 48, 49, 50],
     [51, 57, 65, 70, 97, 102, 46, 58],
     [93, 48, 57, 65, 70, 97, 102, 46],
     [58, 93, 48, 57, 65, 70, 97, 102],
     [46, 58, 93, 48, 57, 65, 70, 97],
     [102, 46, 53, 58, 93, 48, 52, 54],
     [57, 65, 70, 97, 102, 46, 58, 93],
     [48, 53, 54, 57, 65, 70, 97, 102],
     [46, 58, 93, 48, 57, 65, 70, 97],
     [102, 46, 58, 93, 48, 57, 65, 70],
     [97, 102, 58, 93, 48, 57, 65, 70],
     [97, 102, 48, 57, 65, 70, 97, 102],
     [48, 57, 65, 70, 97, 102, 33, 37],
     [47, 62, 63, 64, 95, 126, 36, 57],
     [58, 59, 61, 90, 97, 122, 48, 57],
     [65, 70, 97, 102, 48, 57, 65, 70],
     [97, 102, 33, 37, 62, 91, 95, 126],
     [36, 59, 61, 90, 97, 122, 43, 58],
     [73, 105, 45, 46, 48, 57, 65, 90],
     [97, 122, 43, 58, 80, 112, 45, 46],
     [48, 57, 65, 90, 97, 122, 43, 58],
     [83, 115, 45, 46, 48, 57, 65, 90],
     [97, 122, 33, 37, 48, 49, 50, 59],
     [61, 63, 91, 95, 126, 35, 47, 51],
     [57, 65, 90, 97, 122, 33, 37, 58],
     [61, 64, 95, 126, 35, 59, 63, 90],
     [97, 122, 48, 57, 65, 70, 97, 102],
     [48, 57, 65, 70, 97, 102, 33, 37],
     [61, 64, 95, 126, 36, 46, 48, 57]]"

definition smp_trans_keys_14 :: "int list list" where
  "smp_trans_keys_14 =
    [[65, 90, 97, 122, 48, 57, 65, 70],
     [97, 102, 48, 57, 65, 70, 97, 102],
     [48, 49, 50, 91, 51, 57, 65, 90],
     [97, 122, 45, 46, 95, 48, 57, 65],
     [90, 97, 122, 45, 95, 48, 57, 65],
     [90, 97, 122, 45, 46, 95, 48, 57],
     [65, 90, 97, 122, 48, 57, 65, 90],
     [97, 122, 45, 46, 58, 59, 62, 63],
     [95, 48, 57, 65, 90, 97, 122, 45],
     [95, 48, 57, 65, 90, 97, 122, 58],
     [59, 62, 63, 48, 57, 65, 90, 97],
     [122, 48, 54, 49, 53, 55, 57, 48],
     [49, 57, 48, 49, 57, 49, 57, 59],
     [62, 63, 33, 37, 76, 79, 84, 93],
     [95, 108, 111, 116, 126, 36, 43, 45],
     [58, 65, 91, 97, 122, 33, 37, 59],
     [61, 62, 63, 93, 95, 126, 36, 43],
     [45, 58, 65, 91, 97, 122, 48, 57],
     [65, 70, 97, 102, 48, 57, 65, 70],
     [97, 102, 33, 37, 59, 61, 62, 63],
     [93, 95, 126, 36, 43, 45, 58, 65],
     [91, 97, 122, 33, 37, 59, 62, 63],
     [93, 95, 126, 36, 43, 45, 58, 65],
     [91, 97, 122, 48, 57, 65, 70, 97],
     [102, 48, 57, 65, 70, 97, 102, 33],
     [36, 37, 63, 93, 95, 126, 39, 43],
     [45, 58, 65, 91, 97, 122, 33, 36],
     [37, 61, 63, 93, 95, 126, 39, 43],
     [45, 58, 65, 91, 97, 122, 48, 57],
     [65, 70, 97, 102, 48, 57, 65, 70],
     [97, 102, 33, 37, 38, 62, 63, 93],
     [95, 126, 36, 43, 45, 58, 65, 91],
     [97, 122, 48, 57, 65, 70, 97, 102],
     [48, 57, 65, 70, 97, 102, 33, 37],
     [93, 95, 126, 36, 43, 45, 58, 65],
     [91, 97, 122, 33, 37, 59, 61, 62],
     [63, 82, 93, 95, 114, 126, 36, 43],
     [45, 58, 65, 91, 97, 122, 33, 37],
     [59, 61, 62, 63, 93, 95, 126, 36],
     [43, 45, 58, 65, 91, 97, 122, 33],
     [37, 39, 47, 58, 59, 61, 62, 63],
     [91, 93, 96, 126, 36, 41, 42, 43],
     [45, 57, 65, 90, 95, 122, 33, 37],
     [39, 47, 58, 59, 62, 63, 91, 93],
     [96, 126, 36, 41, 42, 43, 45, 57],
     [65, 90, 95, 122, 33, 37, 39, 59],
     [62, 63, 126, 42, 43, 45, 46, 48],
     [57, 65, 70, 71, 90, 95, 96, 97],
     [102, 103, 122, 33, 37, 39, 59, 62],
     [63, 126, 42, 43, 45, 46, 48, 57],
     [65, 90, 95, 122, 33, 37, 39, 59],
     [62, 63, 126, 42, 43, 45, 46, 48],
     [57, 65, 70, 71, 90, 95, 96, 97],
     [102, 103, 122, 33, 37, 59, 61, 62],
     [63, 66, 86, 93, 95, 98, 118, 126],
     [36, 43, 45, 58, 65, 91, 97, 122],
     [33, 37, 59, 61, 62, 63, 93, 95],
     [126, 36, 43, 45, 58, 65, 91, 97],
     [122, 33, 37, 59, 61, 62, 63, 73],
     [93, 95, 105, 126, 36, 43, 45, 58],
     [65, 91, 97, 122, 33, 37, 59, 61],
     [62, 63, 68, 93, 95, 100, 126, 36],
     [43, 45, 58, 65, 91, 97, 122, 33],
     [37, 59, 61, 62, 63, 93, 95, 126],
     [36, 43, 45, 58, 65, 91, 97, 122],
     [33, 37, 39, 47, 58, 59, 61, 62],
     [63, 91, 93, 96, 126, 36, 41, 42],
     [43, 45, 57, 65, 90, 95, 122, 33],
     [37, 39, 47, 58, 59, 62, 63, 91],
     [93, 96, 126, 36, 41, 42, 43, 45],
     [57, 65, 90, 95, 122, 33, 37, 39],
     [59, 62, 63, 126, 42, 43, 45, 46],
     [48, 57, 65, 70, 71, 90, 95, 96],
     [97, 102, 103, 122, 33, 37, 39, 59],
     [62, 63, 126, 42, 43, 45, 46, 48],
     [57, 65, 90, 95, 122, 33, 37, 39],
     [59, 62, 63, 126, 42, 43, 45, 46],
     [48, 57, 65, 70, 71, 90, 95, 96],
     [97, 102, 103, 122, 33, 37, 59, 61],
     [62, 63, 82, 93, 95, 114, 126, 36],
     [43, 45, 58, 65, 91, 97, 122, 33],
     [37, 59, 61, 62, 63, 65, 93, 95],
     [97, 126, 36, 43, 45, 58, 66, 91],
     [98, 122, 33, 37, 59, 61, 62, 63],
     [78, 93, 95, 110, 126, 36, 43, 45],
     [58, 65, 91, 97, 122, 33, 37, 59],
     [61, 62, 63, 83, 93, 95, 115, 126],
     [36, 43, 45, 58, 65, 91, 97, 122],
     [33, 37, 59, 61, 62, 63, 80, 93],
     [95, 112, 126, 36, 43, 45, 58, 65],
     [91, 97, 122, 33, 37, 59, 61, 62],
     [63, 79, 93, 95, 111, 126, 36, 43],
     [45, 58, 65, 91, 97, 122, 33, 37],
     [59, 61, 62, 63, 82, 93, 95, 114],
     [126, 36, 43, 45, 58, 65, 91, 97],
     [122, 33, 37, 59, 61, 62, 63, 84],
     [93, 95, 116, 126, 36, 43, 45, 58],
     [65, 91, 97, 122, 33, 37, 59, 61],
     [62, 63, 93, 95, 126, 36, 43, 45],
     [58, 65, 91, 97, 122, 33, 37, 39],
     [47, 58, 59, 61, 62, 63, 83, 84],
     [85, 87, 91, 93, 96, 115, 116, 117],
     [119, 126, 36, 41, 42, 43, 45, 57],
     [65, 90, 95, 122, 33, 37, 39, 47],
     [58, 59, 62, 63, 91, 93, 96, 126],
     [36, 41, 42, 43, 45, 57, 65, 90],
     [95, 122, 33, 37, 39, 59, 62, 63],
     [126, 42, 43, 45, 46, 48, 57, 65],
     [70, 71, 90, 95, 96, 97, 102, 103],
     [122, 33, 37, 39, 59, 62, 63, 126],
     [42, 43, 45, 46, 48, 57, 65, 90],
     [95, 122, 33, 37, 39, 59, 62, 63],
     [126, 42, 43, 45, 46, 48, 57, 65],
     [70, 71, 90, 95, 96, 97, 102, 103],
     [122, 33, 37, 39, 47, 58, 59, 62],
     [63, 67, 91, 93, 96, 99, 126, 36],
     [41, 42, 43, 45, 57, 65, 90, 95],
     [122, 33, 37, 39, 47, 58, 59, 62],
     [63, 84, 91, 93, 96, 116, 126, 36],
     [41, 42, 43, 45, 57, 65, 90, 95],
     [122, 33, 37, 39, 47, 58, 59, 62],
     [63, 80, 91, 93, 96, 112, 126, 36],
     [41, 42, 43, 45, 57, 65, 90, 95],
     [122, 33, 37, 39, 47, 58, 59, 62],
     [63, 91, 93, 96, 126, 36, 41, 42],
     [43, 45, 57, 65, 90, 95, 122, 33],
     [37, 39, 47, 58, 59, 62, 63, 67],
     [76, 91, 93, 96, 99, 108, 126, 36],
     [41, 42, 43, 45, 57, 65, 90, 95],
     [122, 33, 37, 39, 47, 58, 59, 62],
     [63, 80, 91, 93, 96, 112, 126, 36],
     [41, 42, 43, 45, 57, 65, 90, 95],
     [122, 33, 37, 39, 47, 58, 59, 62],
     [63, 91, 93, 96, 126, 36, 41, 42],
     [43, 45, 57, 65, 90, 95, 122, 33],
     [37, 39, 47, 58, 59, 62, 63, 83],
     [91, 93, 96, 115, 126, 36, 41, 42],
     [43, 45, 57, 65, 90, 95, 122, 33],
     [37, 39, 47, 58, 59, 62, 63, 91],
     [93, 96, 126, 36, 41, 42, 43, 45],
     [57, 65, 90, 95, 122, 33, 37, 39],
     [47, 58, 59, 62, 63, 68, 91, 93],
     [96, 100, 126, 36, 41, 42, 43, 45],
     [57, 65, 90, 95, 122, 33, 37, 39],
     [47, 58, 59, 62, 63, 80, 91, 93],
     [96, 112, 126, 36, 41, 42, 43, 45],
     [57, 65, 90, 95, 122, 33, 37, 39],
     [47, 58, 59, 62, 63, 91, 93, 96],
     [126, 36, 41, 42, 43, 45, 57, 65],
     [90, 95, 122, 33, 37, 39, 47, 58]]"

definition smp_trans_keys_15 :: "int list list" where
  "smp_trans_keys_15 =
    [[59, 62, 63, 83, 91, 93, 96, 115],
     [126, 36, 41, 42, 43, 45, 57, 65],
     [90, 95, 122, 33, 37, 39, 47, 58],
     [59, 62, 63, 83, 91, 93, 96, 115],
     [126, 36, 41, 42, 43, 45, 57, 65],
     [90, 95, 122, 33, 37, 39, 47, 58],
     [59, 62, 63, 91, 93, 96, 126, 36],
     [41, 42, 43, 45, 57, 65, 90, 95],
     [122, 59, 62, 63, 48, 57, 59, 62],
     [63, 48, 57, 59, 62, 63, 48, 57],
     [59, 62, 63, 48, 57, 53, 59, 62],
     [63, 48, 52, 54, 57, 53, 59, 62],
     [63, 48, 52, 54, 57, 51, 59, 62],
     [63, 48, 50, 52, 57, 59, 62, 63],
     [48, 53, 48, 49, 50, 51, 57, 65],
     [90, 97, 122, 45, 46, 95, 48, 57],
     [65, 90, 97, 122, 48, 49, 50, 51],
     [57, 65, 90, 97, 122, 45, 46, 95],
     [48, 57, 65, 90, 97, 122, 48, 49],
     [50, 51, 57, 65, 90, 97, 122, 45],
     [46, 58, 59, 62, 63, 95, 48, 57],
     [65, 90, 97, 122, 45, 46, 58, 59],
     [62, 63, 95, 48, 57, 65, 90, 97],
     [122, 45, 46, 58, 59, 62, 63, 95],
     [48, 57, 65, 90, 97, 122, 45, 46],
     [53, 58, 59, 62, 63, 95, 48, 52],
     [54, 57, 65, 90, 97, 122, 45, 46],
     [58, 59, 62, 63, 95, 48, 53, 54],
     [57, 65, 90, 97, 122, 45, 46, 95],
     [48, 57, 65, 90, 97, 122, 45, 46],
     [95, 48, 57, 65, 90, 97, 122, 45],
     [46, 53, 95, 48, 52, 54, 57, 65],
     [90, 97, 122, 45, 46, 95, 48, 53],
     [54, 57, 65, 90, 97, 122, 45, 46],
     [95, 48, 57, 65, 90, 97, 122, 45],
     [46, 95, 48, 57, 65, 90, 97, 122],
     [45, 46, 53, 95, 48, 52, 54, 57],
     [65, 90, 97, 122, 45, 46, 95, 48],
     [53, 54, 57, 65, 90, 97, 122, 45],
     [46, 95, 48, 57, 65, 90, 97, 122],
     [45, 46, 95, 48, 57, 65, 90, 97],
     [122, 45, 46, 53, 95, 48, 52, 54],
     [57, 65, 90, 97, 122, 45, 46, 95],
     [48, 53, 54, 57, 65, 90, 97, 122],
     [58, 48, 57, 65, 70, 97, 102, 58],
     [48, 57, 65, 70, 97, 102, 58, 48],
     [57, 65, 70, 97, 102, 58, 48, 57],
     [65, 70, 97, 102, 58, 58, 48, 57],
     [65, 70, 97, 102, 58, 48, 57, 65],
     [70, 97, 102, 58, 48, 57, 65, 70],
     [97, 102, 58, 48, 57, 65, 70, 97],
     [102, 58, 58, 48, 57, 65, 70, 97],
     [102, 58, 48, 57, 65, 70, 97, 102],
     [58, 48, 57, 65, 70, 97, 102, 58],
     [48, 57, 65, 70, 97, 102, 58, 58],
     [48, 57, 65, 70, 97, 102, 58, 48],
     [57, 65, 70, 97, 102, 58, 48, 57],
     [65, 70, 97, 102, 58, 48, 57, 65],
     [70, 97, 102, 58, 58, 48, 57, 65],
     [70, 97, 102, 58, 48, 57, 65, 70],
     [97, 102, 58, 48, 57, 65, 70, 97],
     [102, 58, 48, 57, 65, 70, 97, 102],
     [58, 58, 48, 57, 65, 70, 97, 102],
     [58, 48, 57, 65, 70, 97, 102, 58],
     [48, 57, 65, 70, 97, 102, 58, 48],
     [57, 65, 70, 97, 102, 58, 48, 49],
     [50, 58, 51, 57, 65, 70, 97, 102],
     [46, 58, 48, 57, 65, 70, 97, 102],
     [48, 49, 50, 51, 57, 46, 48, 49],
     [50, 51, 57, 46, 48, 49, 50, 51],
     [57, 93, 58, 59, 62, 63, 93, 48],
     [57, 93, 48, 57, 53, 93, 48, 52],
     [54, 57, 93, 48, 53, 46, 48, 57],
     [46, 48, 57, 46, 53, 48, 52, 54],
     [57, 46, 48, 53, 46, 48, 57, 46],
     [48, 57, 46, 53, 48, 52, 54, 57],
     [46, 48, 53, 58, 48, 57, 65, 70],
     [97, 102, 58, 48, 57, 65, 70, 97],
     [102, 58, 58, 48, 57, 65, 70, 97],
     [102, 93, 48, 57, 65, 70, 97, 102],
     [93, 48, 57, 65, 70, 97, 102, 93],
     [48, 57, 65, 70, 97, 102, 46, 58],
     [48, 57, 65, 70, 97, 102, 46, 58],
     [48, 57, 65, 70, 97, 102, 46, 58],
     [48, 57, 65, 70, 97, 102, 46, 53],
     [58, 48, 52, 54, 57, 65, 70, 97],
     [102, 46, 58, 48, 53, 54, 57, 65],
     [70, 97, 102, 46, 58, 48, 57, 65],
     [70, 97, 102, 46, 58, 48, 57, 65],
     [70, 97, 102, 93, 48, 57, 65, 70],
     [97, 102, 58, 48, 57, 65, 70, 97],
     [102, 48, 49, 50, 93, 51, 57, 65],
     [70, 97, 102, 46, 58, 93, 48, 57],
     [65, 70, 97, 102, 58, 93, 48, 57],
     [65, 70, 97, 102, 58, 93, 48, 57],
     [65, 70, 97, 102, 58, 93, 48, 57],
     [65, 70, 97, 102, 46, 58, 93, 48],
     [57, 65, 70, 97, 102, 46, 58, 93],
     [48, 57, 65, 70, 97, 102, 46, 58],
     [93, 48, 57, 65, 70, 97, 102, 46],
     [53, 58, 93, 48, 52, 54, 57, 65],
     [70, 97, 102, 46, 58, 93, 48, 53],
     [54, 57, 65, 70, 97, 102, 46, 58],
     [93, 48, 57, 65, 70, 97, 102, 46],
     [58, 93, 48, 57, 65, 70, 97, 102],
     [58, 93, 48, 57, 65, 70, 97, 102],
     [48, 49, 50, 93, 51, 57, 65, 70],
     [97, 102, 46, 58, 93, 48, 57, 65],
     [70, 97, 102, 58, 93, 48, 57, 65],
     [70, 97, 102, 58, 93, 48, 57, 65],
     [70, 97, 102, 58, 93, 48, 49, 50],
     [51, 57, 65, 70, 97, 102, 46, 58],
     [93, 48, 57, 65, 70, 97, 102, 46],
     [58, 93, 48, 57, 65, 70, 97, 102],
     [46, 58, 93, 48, 57, 65, 70, 97],
     [102, 46, 53, 58, 93, 48, 52, 54],
     [57, 65, 70, 97, 102, 46, 58, 93],
     [48, 53, 54, 57, 65, 70, 97, 102],
     [46, 58, 93, 48, 57, 65, 70, 97],
     [102, 46, 58, 93, 48, 57, 65, 70],
     [97, 102, 58, 93, 48, 57, 65, 70],
     [97, 102, 48, 49, 50, 93, 51, 57],
     [65, 70, 97, 102, 46, 58, 93, 48],
     [57, 65, 70, 97, 102, 58, 93, 48],
     [57, 65, 70, 97, 102, 58, 93, 48],
     [57, 65, 70, 97, 102, 58, 93, 48],
     [49, 50, 51, 57, 65, 70, 97, 102],
     [46, 58, 93, 48, 57, 65, 70, 97],
     [102, 46, 58, 93, 48, 57, 65, 70],
     [97, 102, 46, 58, 93, 48, 57, 65],
     [70, 97, 102, 46, 53, 58, 93, 48],
     [52, 54, 57, 65, 70, 97, 102, 46],
     [58, 93, 48, 53, 54, 57, 65, 70],
     [97, 102, 46, 58, 93, 48, 57, 65],
     [70, 97, 102, 46, 58, 93, 48, 57],
     [65, 70, 97, 102, 58, 93, 48, 57],
     [65, 70, 97, 102, 48, 49, 50, 93],
     [51, 57, 65, 70, 97, 102, 46, 58],
     [93, 48, 57, 65, 70, 97, 102, 58],
     [93, 48, 57, 65, 70, 97, 102, 58],
     [93, 48, 57, 65, 70, 97, 102, 58],
     [93, 48, 49, 50, 51, 57, 65, 70],
     [97, 102, 46, 58, 93, 48, 57, 65],
     [70, 97, 102, 46, 58, 93, 48, 57],
     [65, 70, 97, 102, 46, 58, 93, 48],
     [57, 65, 70, 97, 102, 46, 53, 58],
     [93, 48, 52, 54, 57, 65, 70, 97],
     [102, 46, 58, 93, 48, 53, 54, 57],
     [65, 70, 97, 102, 46, 58, 93, 48],
     [57, 65, 70, 97, 102, 46, 58, 93]]"

definition smp_trans_keys_16 :: "int list list" where
  "smp_trans_keys_16 =
    [[48, 57, 65, 70, 97, 102, 58, 93],
     [48, 57, 65, 70, 97, 102, 48, 49],
     [50, 93, 51, 57, 65, 70, 97, 102],
     [46, 58, 93, 48, 57, 65, 70, 97],
     [102, 58, 93, 48, 57, 65, 70, 97],
     [102, 58, 93, 48, 57, 65, 70, 97],
     [102, 58, 93, 48, 49, 50, 51, 57],
     [65, 70, 97, 102, 46, 58, 93, 48],
     [57, 65, 70, 97, 102, 46, 58, 93],
     [48, 57, 65, 70, 97, 102, 46, 58],
     [93, 48, 57, 65, 70, 97, 102, 46],
     [53, 58, 93, 48, 52, 54, 57, 65],
     [70, 97, 102, 46, 58, 93, 48, 53],
     [54, 57, 65, 70, 97, 102, 46, 58],
     [93, 48, 57, 65, 70, 97, 102, 46],
     [58, 93, 48, 57, 65, 70, 97, 102],
     [58, 93, 48, 57, 65, 70, 97, 102],
     [58, 48, 49, 50, 93, 51, 57, 65],
     [70, 97, 102, 46, 58, 93, 48, 57],
     [65, 70, 97, 102, 58, 93, 48, 57],
     [65, 70, 97, 102, 58, 93, 48, 57],
     [65, 70, 97, 102, 58, 93, 48, 49],
     [50, 51, 57, 65, 70, 97, 102, 46],
     [58, 93, 48, 57, 65, 70, 97, 102],
     [46, 58, 93, 48, 57, 65, 70, 97],
     [102, 46, 58, 93, 48, 57, 65, 70],
     [97, 102, 46, 53, 58, 93, 48, 52],
     [54, 57, 65, 70, 97, 102, 46, 58],
     [93, 48, 53, 54, 57, 65, 70, 97],
     [102, 46, 58, 93, 48, 57, 65, 70],
     [97, 102, 46, 58, 93, 48, 57, 65],
     [70, 97, 102, 58, 93, 48, 57, 65],
     [70, 97, 102, 33, 37, 45, 46, 58],
     [59, 61, 63, 64, 95, 126, 35, 47],
     [48, 57, 65, 90, 97, 122, 33, 37],
     [45, 58, 59, 61, 63, 64, 95, 126],
     [35, 47, 48, 57, 65, 90, 97, 122],
     [33, 37, 45, 46, 58, 59, 61, 63],
     [64, 95, 126, 35, 47, 48, 57, 65],
     [90, 97, 122, 33, 37, 58, 59, 61],
     [63, 64, 95, 126, 35, 47, 48, 57],
     [65, 90, 97, 122, 33, 37, 45, 46],
     [58, 59, 61, 62, 63, 64, 95, 126],
     [35, 47, 48, 57, 65, 90, 97, 122],
     [33, 37, 45, 58, 59, 61, 63, 64],
     [95, 126, 35, 47, 48, 57, 65, 90],
     [97, 122, 33, 37, 58, 59, 61, 62],
     [63, 64, 95, 126, 35, 47, 48, 57],
     [65, 90, 97, 122, 33, 37, 48, 54],
     [61, 64, 95, 126, 36, 46, 49, 53],
     [55, 57, 65, 90, 97, 122, 33, 37],
     [48, 61, 64, 95, 126, 36, 46, 49],
     [57, 65, 90, 97, 122, 33, 37, 48],
     [61, 64, 95, 126, 36, 46, 49, 57],
     [65, 90, 97, 122, 33, 37, 48, 61],
     [64, 95, 126, 36, 46, 49, 57, 65],
     [90, 97, 122, 33, 37, 59, 62, 63],
     [64, 95, 126, 36, 46, 48, 57, 61],
     [90, 97, 122, 33, 37, 59, 62, 63],
     [64, 95, 126, 36, 46, 48, 57, 61],
     [90, 97, 122, 33, 37, 59, 62, 63],
     [64, 95, 126, 36, 46, 48, 57, 61],
     [90, 97, 122, 33, 37, 59, 62, 63],
     [64, 95, 126, 36, 46, 48, 57, 61],
     [90, 97, 122, 33, 37, 59, 62, 63],
     [64, 95, 126, 36, 46, 48, 57, 61],
     [90, 97, 122, 33, 37, 53, 59, 62],
     [63, 64, 95, 126, 36, 46, 48, 52],
     [54, 57, 61, 90, 97, 122, 33, 37],
     [53, 59, 62, 63, 64, 95, 126, 36],
     [46, 48, 52, 54, 57, 61, 90, 97],
     [122, 33, 37, 51, 59, 62, 63, 64],
     [95, 126, 36, 46, 48, 50, 52, 57],
     [61, 90, 97, 122, 33, 37, 59, 62],
     [63, 64, 95, 126, 36, 46, 48, 53],
     [54, 57, 61, 90, 97, 122, 33, 35],
     [37, 44, 58, 59, 61, 63, 64, 76],
     [79, 84, 91, 93, 95, 108, 111, 116],
     [126, 36, 57, 65, 90, 97, 122, 33],
     [35, 37, 44, 58, 59, 61, 62, 63],
     [64, 91, 93, 95, 126, 36, 57, 65],
     [90, 97, 122, 48, 57, 65, 70, 97],
     [102, 48, 57, 65, 70, 97, 102, 33],
     [37, 44, 47, 58, 59, 61, 62, 63],
     [64, 91, 93, 95, 126, 36, 57, 65],
     [90, 97, 122, 48, 57, 65, 70, 97],
     [102, 48, 57, 65, 70, 97, 102, 33],
     [37, 44, 47, 58, 59, 61, 62, 63],
     [64, 91, 93, 95, 126, 36, 57, 65],
     [90, 97, 122, 33, 37, 44, 47, 58],
     [59, 61, 62, 63, 64, 91, 93, 95],
     [126, 36, 57, 65, 90, 97, 122, 48],
     [57, 65, 70, 97, 102, 48, 57, 65],
     [70, 97, 102, 33, 37, 44, 47, 58],
     [61, 64, 91, 93, 95, 126, 36, 57],
     [65, 90, 97, 122, 33, 35, 37, 44],
     [58, 59, 61, 62, 63, 64, 91, 93],
     [95, 126, 36, 57, 65, 90, 97, 122],
     [33, 35, 37, 44, 58, 59, 61, 62],
     [63, 64, 91, 93, 95, 126, 36, 57],
     [65, 90, 97, 122, 48, 57, 65, 70],
     [97, 102, 48, 57, 65, 70, 97, 102],
     [33, 36, 37, 44, 58, 59, 61, 64],
     [91, 93, 95, 126, 35, 38, 39, 57],
     [63, 90, 97, 122, 33, 36, 37, 44],
     [58, 59, 61, 64, 91, 93, 95, 126],
     [35, 38, 39, 57, 63, 90, 97, 122],
     [48, 57, 65, 70, 97, 102, 48, 57],
     [65, 70, 97, 102, 33, 37, 38, 44],
     [47, 58, 61, 63, 64, 91, 93, 95],
     [126, 36, 57, 65, 90, 97, 122, 48],
     [57, 65, 70, 97, 102, 48, 57, 65],
     [70, 97, 102, 33, 37, 38, 44, 47],
     [58, 61, 62, 63, 64, 91, 93, 95],
     [126, 36, 57, 65, 90, 97, 122, 48],
     [57, 65, 70, 97, 102, 48, 57, 65],
     [70, 97, 102, 33, 37, 38, 44, 47],
     [58, 61, 63, 64, 91, 93, 95, 126],
     [36, 57, 65, 90, 97, 122, 33, 35],
     [37, 38, 44, 58, 59, 61, 62, 64],
     [91, 93, 95, 126, 36, 57, 63, 90],
     [97, 122, 48, 57, 65, 70, 97, 102],
     [48, 57, 65, 70, 97, 102, 33, 35],
     [37, 44, 58, 59, 61, 63, 64, 91],
     [93, 95, 126, 36, 57, 65, 90, 97],
     [122, 33, 35, 37, 44, 58, 59, 61],
     [62, 63, 64, 82, 91, 93, 95, 114],
     [126, 36, 57, 65, 90, 97, 122, 33],
     [35, 37, 44, 58, 59, 61, 62, 63],
     [64, 91, 93, 95, 126, 36, 57, 65],
     [90, 97, 122, 33, 35, 37, 39, 44],
     [47, 58, 59, 61, 62, 63, 64, 91],
     [93, 96, 126, 36, 41, 42, 57, 65],
     [90, 95, 122, 33, 35, 37, 39, 44],
     [47, 58, 59, 61, 62, 63, 64, 91],
     [93, 96, 126, 36, 41, 42, 57, 65],
     [90, 95, 122, 33, 37, 39, 59, 62],
     [63, 126, 42, 43, 45, 46, 48, 57],
     [65, 70, 71, 90, 95, 96, 97, 102],
     [103, 122, 33, 37, 39, 59, 62, 63],
     [126, 42, 43, 45, 46, 48, 57, 65],
     [70, 71, 90, 95, 96, 97, 102, 103],
     [122, 33, 35, 37, 44, 58, 59, 61],
     [62, 63, 64, 66, 86, 91, 93, 95],
     [98, 118, 126, 36, 57, 65, 90, 97],
     [122, 33, 35, 37, 44, 58, 59, 61],
     [62, 63, 64, 91, 93, 95, 126, 36],
     [57, 65, 90, 97, 122, 33, 35, 37],
     [44, 58, 59, 61, 62, 63, 64, 73],
     [91, 93, 95, 105, 126, 36, 57, 65]]"

definition smp_trans_keys_17 :: "int list list" where
  "smp_trans_keys_17 =
    [[90, 97, 122, 33, 35, 37, 44, 58],
     [59, 61, 62, 63, 64, 68, 91, 93],
     [95, 100, 126, 36, 57, 65, 90, 97],
     [122, 33, 35, 37, 44, 58, 59, 61],
     [62, 63, 64, 91, 93, 95, 126, 36],
     [57, 65, 90, 97, 122, 33, 35, 37],
     [39, 44, 47, 58, 59, 61, 62, 63],
     [64, 91, 93, 96, 126, 36, 41, 42],
     [57, 65, 90, 95, 122, 33, 35, 37],
     [39, 44, 47, 58, 59, 61, 62, 63],
     [64, 91, 93, 96, 126, 36, 41, 42],
     [57, 65, 90, 95, 122, 33, 37, 39],
     [59, 62, 63, 126, 42, 43, 45, 46],
     [48, 57, 65, 70, 71, 90, 95, 96],
     [97, 102, 103, 122, 33, 37, 39, 59],
     [62, 63, 126, 42, 43, 45, 46, 48],
     [57, 65, 70, 71, 90, 95, 96, 97],
     [102, 103, 122, 33, 35, 37, 44, 58],
     [59, 61, 62, 63, 64, 82, 91, 93],
     [95, 114, 126, 36, 57, 65, 90, 97],
     [122, 33, 35, 37, 44, 58, 59, 61],
     [62, 63, 64, 65, 91, 93, 95, 97],
     [126, 36, 57, 66, 90, 98, 122, 33],
     [35, 37, 44, 58, 59, 61, 62, 63],
     [64, 78, 91, 93, 95, 110, 126, 36],
     [57, 65, 90, 97, 122, 33, 35, 37],
     [44, 58, 59, 61, 62, 63, 64, 83],
     [91, 93, 95, 115, 126, 36, 57, 65],
     [90, 97, 122, 33, 35, 37, 44, 58],
     [59, 61, 62, 63, 64, 80, 91, 93],
     [95, 112, 126, 36, 57, 65, 90, 97],
     [122, 33, 35, 37, 44, 58, 59, 61],
     [62, 63, 64, 79, 91, 93, 95, 111],
     [126, 36, 57, 65, 90, 97, 122, 33],
     [35, 37, 44, 58, 59, 61, 62, 63],
     [64, 82, 91, 93, 95, 114, 126, 36],
     [57, 65, 90, 97, 122, 33, 35, 37],
     [44, 58, 59, 61, 62, 63, 64, 84],
     [91, 93, 95, 116, 126, 36, 57, 65],
     [90, 97, 122, 33, 35, 37, 44, 58],
     [59, 61, 62, 63, 64, 91, 93, 95],
     [126, 36, 57, 65, 90, 97, 122, 33],
     [35, 37, 39, 44, 47, 58, 59, 61],
     [62, 63, 64, 83, 84, 85, 87, 91],
     [93, 96, 115, 116, 117, 119, 126, 36],
     [41, 42, 57, 65, 90, 95, 122, 33],
     [35, 37, 39, 44, 47, 58, 59, 61],
     [62, 63, 64, 91, 93, 96, 126, 36],
     [41, 42, 57, 65, 90, 95, 122, 33],
     [37, 39, 59, 62, 63, 126, 42, 43],
     [45, 46, 48, 57, 65, 70, 71, 90],
     [95, 96, 97, 102, 103, 122, 33, 37],
     [39, 59, 62, 63, 126, 42, 43, 45],
     [46, 48, 57, 65, 70, 71, 90, 95],
     [96, 97, 102, 103, 122, 33, 35, 37],
     [39, 44, 47, 58, 59, 61, 62, 63],
     [64, 67, 91, 93, 96, 99, 126, 36],
     [41, 42, 57, 65, 90, 95, 122, 33],
     [35, 37, 39, 44, 47, 58, 59, 61],
     [62, 63, 64, 84, 91, 93, 96, 116],
     [126, 36, 41, 42, 57, 65, 90, 95],
     [122, 33, 35, 37, 39, 44, 47, 58],
     [59, 61, 62, 63, 64, 80, 91, 93],
     [96, 112, 126, 36, 41, 42, 57, 65],
     [90, 95, 122, 33, 35, 37, 39, 44],
     [47, 58, 59, 61, 62, 63, 64, 91],
     [93, 96, 126, 36, 41, 42, 57, 65],
     [90, 95, 122, 33, 35, 37, 39, 44],
     [47, 58, 59, 61, 62, 63, 64, 67],
     [76, 91, 93, 96, 99, 108, 126, 36],
     [41, 42, 57, 65, 90, 95, 122, 33],
     [35, 37, 39, 44, 47, 58, 59, 61],
     [62, 63, 64, 80, 91, 93, 96, 112],
     [126, 36, 41, 42, 57, 65, 90, 95],
     [122, 33, 35, 37, 39, 44, 47, 58],
     [59, 61, 62, 63, 64, 91, 93, 96],
     [126, 36, 41, 42, 57, 65, 90, 95],
     [122, 33, 35, 37, 39, 44, 47, 58],
     [59, 61, 62, 63, 64, 83, 91, 93],
     [96, 115, 126, 36, 41, 42, 57, 65],
     [90, 95, 122, 33, 35, 37, 39, 44],
     [47, 58, 59, 61, 62, 63, 64, 91],
     [93, 96, 126, 36, 41, 42, 57, 65],
     [90, 95, 122, 33, 35, 37, 39, 44],
     [47, 58, 59, 61, 62, 63, 64, 68],
     [91, 93, 96, 100, 126, 36, 41, 42],
     [57, 65, 90, 95, 122, 33, 35, 37],
     [39, 44, 47, 58, 59, 61, 62, 63],
     [64, 80, 91, 93, 96, 112, 126, 36],
     [41, 42, 57, 65, 90, 95, 122, 33],
     [35, 37, 39, 44, 47, 58, 59, 61],
     [62, 63, 64, 91, 93, 96, 126, 36],
     [41, 42, 57, 65, 90, 95, 122, 33],
     [35, 37, 39, 44, 47, 58, 59, 61],
     [62, 63, 64, 83, 91, 93, 96, 115],
     [126, 36, 41, 42, 57, 65, 90, 95],
     [122, 33, 35, 37, 39, 44, 47, 58],
     [59, 61, 62, 63, 64, 83, 91, 93],
     [96, 115, 126, 36, 41, 42, 57, 65],
     [90, 95, 122, 33, 35, 37, 39, 44],
     [47, 58, 59, 61, 62, 63, 64, 91],
     [93, 96, 126, 36, 41, 42, 57, 65],
     [90, 95, 122, 33, 37, 48, 49, 50],
     [58, 59, 61, 63, 64, 95, 126, 35],
     [47, 51, 57, 65, 90, 97, 122, 33],
     [37, 45, 46, 58, 59, 61, 63, 64],
     [95, 126, 35, 47, 48, 57, 65, 90],
     [97, 122, 33, 37, 48, 49, 50, 58],
     [59, 61, 63, 64, 95, 126, 35, 47],
     [51, 57, 65, 90, 97, 122, 33, 37],
     [45, 46, 58, 59, 61, 63, 64, 95],
     [126, 35, 47, 48, 57, 65, 90, 97],
     [122, 33, 37, 48, 49, 50, 58, 59],
     [61, 63, 64, 95, 126, 35, 47, 51],
     [57, 65, 90, 97, 122, 33, 37, 45],
     [46, 58, 59, 61, 62, 63, 64, 95],
     [126, 35, 47, 48, 57, 65, 90, 97],
     [122, 33, 37, 45, 46, 58, 59, 61],
     [62, 63, 64, 95, 126, 35, 47, 48],
     [57, 65, 90, 97, 122, 33, 37, 45],
     [46, 58, 59, 61, 62, 63, 64, 95],
     [126, 35, 47, 48, 57, 65, 90, 97],
     [122, 33, 37, 45, 46, 53, 58, 59],
     [61, 62, 63, 64, 95, 126, 35, 47],
     [48, 52, 54, 57, 65, 90, 97, 122],
     [33, 37, 45, 46, 58, 59, 61, 62],
     [63, 64, 95, 126, 35, 47, 48, 53],
     [54, 57, 65, 90, 97, 122, 33, 37],
     [45, 46, 58, 59, 61, 63, 64, 95],
     [126, 35, 47, 48, 57, 65, 90, 97],
     [122, 33, 37, 45, 46, 58, 59, 61],
     [63, 64, 95, 126, 35, 47, 48, 57],
     [65, 90, 97, 122, 33, 37, 45, 46],
     [53, 58, 59, 61, 63, 64, 95, 126],
     [35, 47, 48, 52, 54, 57, 65, 90],
     [97, 122, 33, 37, 45, 46, 58, 59],
     [61, 63, 64, 95, 126, 35, 47, 48],
     [53, 54, 57, 65, 90, 97, 122, 33],
     [37, 45, 46, 58, 59, 61, 63, 64],
     [95, 126, 35, 47, 48, 57, 65, 90],
     [97, 122, 33, 37, 45, 46, 58, 59],
     [61, 63, 64, 95, 126, 35, 47, 48],
     [57, 65, 90, 97, 122, 33, 37, 45],
     [46, 53, 58, 59, 61, 63, 64, 95],
     [126, 35, 47, 48, 52, 54, 57, 65],
     [90, 97, 122, 33, 37, 45, 46, 58],
     [59, 61, 63, 64, 95, 126, 35, 47],
     [48, 53, 54, 57, 65, 90, 97, 122],
     [33, 37, 45, 46, 58, 59, 61, 63],
     [64, 95, 126, 35, 47, 48, 57, 65]]"

definition smp_trans_keys_18 :: "int list list" where
  "smp_trans_keys_18 =
    [[90, 97, 122, 33, 37, 45, 46, 58],
     [59, 61, 63, 64, 95, 126, 35, 47],
     [48, 57, 65, 90, 97, 122, 33, 37],
     [45, 46, 53, 58, 59, 61, 63, 64],
     [95, 126, 35, 47, 48, 52, 54, 57],
     [65, 90, 97, 122, 33, 37, 45, 46],
     [58, 59, 61, 63, 64, 95, 126, 35],
     [47, 48, 53, 54, 57, 65, 90, 97],
     [122, 43, 58, 45, 46, 48, 57, 65],
     [90, 97, 122, 43, 58, 69, 101, 45],
     [46, 48, 57, 65, 90, 97, 122, 43],
     [58, 76, 108, 45, 46, 48, 57, 65],
     [90, 97, 122, 43, 58, 45, 46, 48],
     [57, 65, 90, 97, 122, 35, 42, 43],
     [40, 41, 45, 46, 48, 57, 65, 70],
     [97, 102, 35, 59, 62, 40, 42, 45],
     [46, 48, 57, 65, 70, 97, 102, 45],
     [80, 112, 48, 57, 65, 90, 97, 122],
     [45, 59, 61, 62, 48, 57, 65, 90],
     [97, 122, 33, 37, 93, 95, 126, 36],
     [43, 45, 58, 65, 91, 97, 122, 33],
     [37, 59, 62, 93, 95, 126, 36, 43],
     [45, 58, 65, 91, 97, 122, 48, 57],
     [65, 70, 97, 102, 48, 57, 65, 70],
     [97, 102, 45, 59, 61, 62, 72, 104],
     [48, 57, 65, 90, 97, 122, 45, 59],
     [61, 62, 79, 111, 48, 57, 65, 90],
     [97, 122, 45, 59, 61, 62, 78, 110],
     [48, 57, 65, 90, 97, 122, 45, 59],
     [61, 62, 69, 101, 48, 57, 65, 90],
     [97, 122, 45, 59, 61, 62, 48, 57],
     [65, 90, 97, 122, 45, 59, 61, 62],
     [67, 99, 48, 57, 65, 90, 97, 122],
     [45, 59, 61, 62, 79, 111, 48, 57],
     [65, 90, 97, 122, 45, 59, 61, 62],
     [78, 110, 48, 57, 65, 90, 97, 122],
     [45, 59, 61, 62, 84, 116, 48, 57],
     [65, 90, 97, 122, 45, 59, 61, 62],
     [69, 101, 48, 57, 65, 90, 97, 122],
     [45, 59, 61, 62, 88, 120, 48, 57],
     [65, 90, 97, 122, 45, 59, 61, 62],
     [84, 116, 48, 57, 65, 90, 97, 122],
     [45, 59, 61, 62, 48, 57, 65, 90],
     [97, 122, 33, 37, 43, 58, 91, 93],
     [95, 126, 36, 42, 45, 47, 48, 57],
     [65, 90, 97, 122, 33, 37, 47, 58],
     [59, 62, 93, 95, 126, 36, 39, 40],
     [41, 42, 43, 45, 46, 48, 57, 65],
     [91, 97, 122, 33, 37, 47, 58, 59],
     [62, 93, 95, 126, 36, 39, 40, 41],
     [42, 43, 45, 57, 65, 91, 97, 122],
     [33, 37, 45, 46, 47, 58, 59, 62],
     [91, 93, 95, 126, 36, 43, 48, 57],
     [65, 90, 97, 122, 33, 37, 45, 58],
     [59, 62, 91, 93, 95, 126, 36, 43],
     [46, 47, 48, 57, 65, 90, 97, 122],
     [33, 37, 58, 59, 62, 91, 93, 95],
     [126, 36, 43, 45, 47, 48, 57, 65],
     [90, 97, 122, 33, 37, 45, 46, 47],
     [58, 59, 62, 91, 93, 95, 126, 36],
     [43, 48, 57, 65, 90, 97, 122, 33],
     [37, 45, 58, 59, 62, 91, 93, 95],
     [126, 36, 43, 46, 47, 48, 57, 65],
     [90, 97, 122, 33, 37, 58, 59, 62],
     [91, 93, 95, 126, 36, 43, 45, 47],
     [48, 57, 65, 90, 97, 122, 35, 42],
     [40, 41, 45, 46, 48, 57, 65, 70],
     [97, 102, 40, 41, 45, 46, 48, 57],
     [59, 62, 40, 41, 45, 46, 48, 57],
     [9, 13, 32, 33, 37, 39, 60, 126],
     [42, 43, 45, 46, 48, 57, 65, 90],
     [95, 122, 9, 13, 32, 33, 37, 39],
     [60, 126, 42, 43, 45, 46, 48, 57],
     [65, 90, 95, 122, 10, 9, 32, 9],
     [32, 33, 37, 39, 60, 126, 42, 43],
     [45, 46, 48, 57, 65, 90, 95, 122],
     [9, 13, 34, 92, -64, -33, -32, -17],
     [-16, -9, -8, -5, -4, -3, 32, 126],
     [-128, -65, -128, -65, -128, -65, -128, -65],
     [-128, -65, 10, 9, 32, 9, 13, 32],
     [60, 9, 13, 32, 60, 0, 9, 11],
     [12, 14, 127, 9, 13, 32, 33, 37],
     [39, 42, 43, 58, 60, 126, 45, 46],
     [48, 57, 65, 90, 95, 96, 97, 122],
     [9, 13, 32, 33, 35, 37, 47, 58],
     [59, 61, 64, 91, 95, 126, 36, 43],
     [45, 57, 65, 90, 97, 122, 9, 13],
     [32, 33, 35, 37, 58, 59, 61, 64],
     [95, 126, 36, 43, 45, 57, 65, 90],
     [97, 122, 33, 37, 58, 61, 64, 95],
     [126, 35, 43, 45, 57, 65, 90, 97],
     [122, 48, 57, 65, 70, 97, 102, 48],
     [57, 65, 70, 97, 102, 33, 37, 61],
     [64, 95, 126, 36, 43, 45, 46, 48],
     [57, 65, 90, 97, 122, 48, 57, 65],
     [70, 97, 102, 48, 57, 65, 70, 97],
     [102, 48, 49, 50, 91, 51, 57, 65],
     [90, 97, 122, 45, 46, 95, 48, 57],
     [65, 90, 97, 122, 45, 95, 48, 57],
     [65, 90, 97, 122, 45, 46, 95, 48],
     [57, 65, 90, 97, 122, 48, 57, 65],
     [90, 97, 122, 9, 13, 32, 45, 46],
     [58, 59, 95, 48, 57, 65, 90, 97],
     [122, 45, 95, 48, 57, 65, 90, 97],
     [122, 9, 13, 32, 58, 59, 48, 57],
     [65, 90, 97, 122, 48, 54, 49, 53],
     [55, 57, 48, 49, 57, 48, 49, 57],
     [49, 57, 9, 13, 32, 59, 9, 13],
     [32, 59, 48, 57, 9, 13, 32, 59],
     [48, 57, 9, 13, 32, 59, 48, 57],
     [9, 13, 32, 59, 48, 57, 9, 13],
     [32, 53, 59, 48, 52, 54, 57, 9],
     [13, 32, 53, 59, 48, 52, 54, 57],
     [9, 13, 32, 51, 59, 48, 50, 52],
     [57, 9, 13, 32, 59, 48, 53, 48],
     [49, 50, 51, 57, 65, 90, 97, 122],
     [45, 46, 95, 48, 57, 65, 90, 97],
     [122, 48, 49, 50, 51, 57, 65, 90],
     [97, 122, 45, 46, 95, 48, 57, 65],
     [90, 97, 122, 48, 49, 50, 51, 57],
     [65, 90, 97, 122, 9, 13, 32, 45],
     [46, 58, 59, 95, 48, 57, 65, 90],
     [97, 122, 9, 13, 32, 45, 46, 58],
     [59, 95, 48, 57, 65, 90, 97, 122],
     [9, 13, 32, 45, 46, 58, 59, 95],
     [48, 57, 65, 90, 97, 122, 9, 13],
     [32, 45, 46, 53, 58, 59, 95, 48],
     [52, 54, 57, 65, 90, 97, 122, 9],
     [13, 32, 45, 46, 58, 59, 95, 48],
     [53, 54, 57, 65, 90, 97, 122, 45],
     [46, 95, 48, 57, 65, 90, 97, 122],
     [45, 46, 95, 48, 57, 65, 90, 97],
     [122, 45, 46, 53, 95, 48, 52, 54],
     [57, 65, 90, 97, 122, 45, 46, 95],
     [48, 53, 54, 57, 65, 90, 97, 122],
     [45, 46, 95, 48, 57, 65, 90, 97],
     [122, 45, 46, 95, 48, 57, 65, 90],
     [97, 122, 45, 46, 53, 95, 48, 52],
     [54, 57, 65, 90, 97, 122, 45, 46],
     [95, 48, 53, 54, 57, 65, 90, 97],
     [122, 45, 46, 95, 48, 57, 65, 90],
     [97, 122, 45, 46, 95, 48, 57, 65],
     [90, 97, 122, 45, 46, 53, 95, 48],
     [52, 54, 57, 65, 90, 97, 122, 45],
     [46, 95, 48, 53, 54, 57, 65, 90],
     [97, 122, 58, 48, 57, 65, 70, 97],
     [102, 58, 48, 57, 65, 70, 97, 102],
     [58, 48, 57, 65, 70, 97, 102, 58],
     [48, 57, 65, 70, 97, 102, 58, 58],
     [48, 57, 65, 70, 97, 102, 58, 48]]"

definition smp_trans_keys_19 :: "int list list" where
  "smp_trans_keys_19 =
    [[57, 65, 70, 97, 102, 58, 48, 57],
     [65, 70, 97, 102, 58, 48, 57, 65],
     [70, 97, 102, 58, 58, 48, 57, 65],
     [70, 97, 102, 58, 48, 57, 65, 70],
     [97, 102, 58, 48, 57, 65, 70, 97],
     [102, 58, 48, 57, 65, 70, 97, 102],
     [58, 58, 48, 57, 65, 70, 97, 102],
     [58, 48, 57, 65, 70, 97, 102, 58],
     [48, 57, 65, 70, 97, 102, 58, 48],
     [57, 65, 70, 97, 102, 58, 58, 48],
     [57, 65, 70, 97, 102, 58, 48, 57],
     [65, 70, 97, 102, 58, 48, 57, 65],
     [70, 97, 102, 58, 48, 57, 65, 70],
     [97, 102, 58, 58, 48, 57, 65, 70],
     [97, 102, 58, 48, 57, 65, 70, 97],
     [102, 58, 48, 57, 65, 70, 97, 102],
     [58, 48, 57, 65, 70, 97, 102, 58],
     [48, 49, 50, 58, 51, 57, 65, 70],
     [97, 102, 46, 58, 48, 57, 65, 70],
     [97, 102, 48, 49, 50, 51, 57, 46],
     [48, 49, 50, 51, 57, 46, 48, 49],
     [50, 51, 57, 93, 9, 13, 32, 58],
     [59, 93, 48, 57, 93, 48, 57, 53],
     [93, 48, 52, 54, 57, 93, 48, 53],
     [46, 48, 57, 46, 48, 57, 46, 53],
     [48, 52, 54, 57, 46, 48, 53, 46],
     [48, 57, 46, 48, 57, 46, 53, 48],
     [52, 54, 57, 46, 48, 53, 58, 48],
     [57, 65, 70, 97, 102, 58, 48, 57],
     [65, 70, 97, 102, 58, 58, 48, 57],
     [65, 70, 97, 102, 93, 48, 57, 65],
     [70, 97, 102, 93, 48, 57, 65, 70],
     [97, 102, 93, 48, 57, 65, 70, 97],
     [102, 46, 58, 48, 57, 65, 70, 97],
     [102, 46, 58, 48, 57, 65, 70, 97],
     [102, 46, 58, 48, 57, 65, 70, 97],
     [102, 46, 53, 58, 48, 52, 54, 57],
     [65, 70, 97, 102, 46, 58, 48, 53],
     [54, 57, 65, 70, 97, 102, 46, 58],
     [48, 57, 65, 70, 97, 102, 46, 58],
     [48, 57, 65, 70, 97, 102, 93, 48],
     [57, 65, 70, 97, 102, 58, 48, 57],
     [65, 70, 97, 102, 48, 49, 50, 93],
     [51, 57, 65, 70, 97, 102, 46, 58],
     [93, 48, 57, 65, 70, 97, 102, 58],
     [93, 48, 57, 65, 70, 97, 102, 58],
     [93, 48, 57, 65, 70, 97, 102, 58],
     [93, 48, 57, 65, 70, 97, 102, 46],
     [58, 93, 48, 57, 65, 70, 97, 102],
     [46, 58, 93, 48, 57, 65, 70, 97],
     [102, 46, 58, 93, 48, 57, 65, 70],
     [97, 102, 46, 53, 58, 93, 48, 52],
     [54, 57, 65, 70, 97, 102, 46, 58],
     [93, 48, 53, 54, 57, 65, 70, 97],
     [102, 46, 58, 93, 48, 57, 65, 70],
     [97, 102, 46, 58, 93, 48, 57, 65],
     [70, 97, 102, 58, 93, 48, 57, 65],
     [70, 97, 102, 48, 49, 50, 93, 51],
     [57, 65, 70, 97, 102, 46, 58, 93],
     [48, 57, 65, 70, 97, 102, 58, 93],
     [48, 57, 65, 70, 97, 102, 58, 93],
     [48, 57, 65, 70, 97, 102, 58, 93],
     [48, 49, 50, 51, 57, 65, 70, 97],
     [102, 46, 58, 93, 48, 57, 65, 70],
     [97, 102, 46, 58, 93, 48, 57, 65],
     [70, 97, 102, 46, 58, 93, 48, 57],
     [65, 70, 97, 102, 46, 53, 58, 93],
     [48, 52, 54, 57, 65, 70, 97, 102],
     [46, 58, 93, 48, 53, 54, 57, 65],
     [70, 97, 102, 46, 58, 93, 48, 57],
     [65, 70, 97, 102, 46, 58, 93, 48],
     [57, 65, 70, 97, 102, 58, 93, 48],
     [57, 65, 70, 97, 102, 48, 49, 50],
     [93, 51, 57, 65, 70, 97, 102, 46],
     [58, 93, 48, 57, 65, 70, 97, 102],
     [58, 93, 48, 57, 65, 70, 97, 102],
     [58, 93, 48, 57, 65, 70, 97, 102],
     [58, 93, 48, 49, 50, 51, 57, 65],
     [70, 97, 102, 46, 58, 93, 48, 57],
     [65, 70, 97, 102, 46, 58, 93, 48],
     [57, 65, 70, 97, 102, 46, 58, 93],
     [48, 57, 65, 70, 97, 102, 46, 53],
     [58, 93, 48, 52, 54, 57, 65, 70],
     [97, 102, 46, 58, 93, 48, 53, 54],
     [57, 65, 70, 97, 102, 46, 58, 93],
     [48, 57, 65, 70, 97, 102, 46, 58],
     [93, 48, 57, 65, 70, 97, 102, 58],
     [93, 48, 57, 65, 70, 97, 102, 48],
     [49, 50, 93, 51, 57, 65, 70, 97],
     [102, 46, 58, 93, 48, 57, 65, 70],
     [97, 102, 58, 93, 48, 57, 65, 70],
     [97, 102, 58, 93, 48, 57, 65, 70],
     [97, 102, 58, 93, 48, 49, 50, 51],
     [57, 65, 70, 97, 102, 46, 58, 93],
     [48, 57, 65, 70, 97, 102, 46, 58],
     [93, 48, 57, 65, 70, 97, 102, 46],
     [58, 93, 48, 57, 65, 70, 97, 102],
     [46, 53, 58, 93, 48, 52, 54, 57],
     [65, 70, 97, 102, 46, 58, 93, 48],
     [53, 54, 57, 65, 70, 97, 102, 46],
     [58, 93, 48, 57, 65, 70, 97, 102],
     [46, 58, 93, 48, 57, 65, 70, 97],
     [102, 58, 93, 48, 57, 65, 70, 97],
     [102, 48, 49, 50, 93, 51, 57, 65],
     [70, 97, 102, 46, 58, 93, 48, 57],
     [65, 70, 97, 102, 58, 93, 48, 57],
     [65, 70, 97, 102, 58, 93, 48, 57],
     [65, 70, 97, 102, 58, 93, 48, 49],
     [50, 51, 57, 65, 70, 97, 102, 46],
     [58, 93, 48, 57, 65, 70, 97, 102],
     [46, 58, 93, 48, 57, 65, 70, 97],
     [102, 46, 58, 93, 48, 57, 65, 70],
     [97, 102, 46, 53, 58, 93, 48, 52],
     [54, 57, 65, 70, 97, 102, 46, 58],
     [93, 48, 53, 54, 57, 65, 70, 97],
     [102, 46, 58, 93, 48, 57, 65, 70],
     [97, 102, 46, 58, 93, 48, 57, 65],
     [70, 97, 102, 58, 93, 48, 57, 65],
     [70, 97, 102, 58, 48, 49, 50, 93],
     [51, 57, 65, 70, 97, 102, 46, 58],
     [93, 48, 57, 65, 70, 97, 102, 58],
     [93, 48, 57, 65, 70, 97, 102, 58],
     [93, 48, 57, 65, 70, 97, 102, 58],
     [93, 48, 49, 50, 51, 57, 65, 70],
     [97, 102, 46, 58, 93, 48, 57, 65],
     [70, 97, 102, 46, 58, 93, 48, 57],
     [65, 70, 97, 102, 46, 58, 93, 48],
     [57, 65, 70, 97, 102, 46, 53, 58],
     [93, 48, 52, 54, 57, 65, 70, 97],
     [102, 46, 58, 93, 48, 53, 54, 57],
     [65, 70, 97, 102, 46, 58, 93, 48],
     [57, 65, 70, 97, 102, 46, 58, 93],
     [48, 57, 65, 70, 97, 102, 58, 93],
     [48, 57, 65, 70, 97, 102, 48, 57],
     [65, 70, 97, 102, 48, 57, 65, 70],
     [97, 102, 9, 13, 32, 33, 37, 47],
     [58, 59, 61, 64, 95, 126, 36, 43],
     [45, 57, 65, 90, 97, 122, 48, 57],
     [65, 70, 97, 102, 48, 57, 65, 70],
     [97, 102, 9, 13, 32, 33, 37, 59],
     [61, 95, 126, 36, 43, 45, 58, 64],
     [90, 97, 122, 48, 57, 65, 70, 97],
     [102, 48, 57, 65, 70, 97, 102, 9],
     [13, 32, 33, 37, 59, 61, 91, 95],
     [126, 36, 43, 45, 58, 64, 90, 97],
     [122, 9, 13, 32, 33, 35, 37, 47],
     [58, 59, 61, 64, 95, 126, 36, 43],
     [45, 57, 65, 90, 97, 122, 9, 13],
     [32, 33, 35, 37, 58, 59, 61, 64],
     [91, 95, 126, 36, 43, 45, 57, 65]]"

definition smp_trans_keys_20 :: "int list list" where
  "smp_trans_keys_20 =
    [[90, 97, 122, 9, 13, 32, 33, 35],
     [37, 58, 59, 61, 64, 95, 126, 36],
     [43, 45, 57, 65, 90, 97, 122, 33],
     [37, 58, 61, 64, 95, 126, 35, 43],
     [45, 57, 65, 90, 97, 122, 48, 57],
     [65, 70, 97, 102, 48, 57, 65, 70],
     [97, 102, 33, 37, 61, 64, 95, 126],
     [36, 43, 45, 46, 48, 57, 65, 90],
     [97, 122, 48, 57, 65, 70, 97, 102],
     [48, 57, 65, 70, 97, 102, 48, 49],
     [50, 91, 51, 57, 65, 90, 97, 122],
     [45, 46, 95, 48, 57, 65, 90, 97],
     [122, 45, 95, 48, 57, 65, 90, 97],
     [122, 45, 46, 95, 48, 57, 65, 90],
     [97, 122, 48, 57, 65, 90, 97, 122],
     [9, 13, 32, 45, 46, 47, 58, 59],
     [95, 48, 57, 65, 90, 97, 122, 45],
     [95, 48, 57, 65, 90, 97, 122, 9],
     [13, 32, 47, 58, 59, 48, 57, 65],
     [90, 97, 122, 48, 54, 49, 53, 55],
     [57, 48, 49, 57, 48, 49, 57, 49],
     [57, 9, 13, 32, 47, 59, 9, 13],
     [32, 47, 59, 48, 57, 9, 13, 32],
     [47, 59, 48, 57, 9, 13, 32, 47],
     [59, 48, 57, 9, 13, 32, 47, 59],
     [48, 57, 9, 13, 32, 47, 53, 59],
     [48, 52, 54, 57, 9, 13, 32, 47],
     [53, 59, 48, 52, 54, 57, 9, 13],
     [32, 47, 51, 59, 48, 50, 52, 57],
     [9, 13, 32, 47, 59, 48, 53, 48],
     [49, 50, 51, 57, 65, 90, 97, 122],
     [45, 46, 95, 48, 57, 65, 90, 97],
     [122, 48, 49, 50, 51, 57, 65, 90],
     [97, 122, 45, 46, 95, 48, 57, 65],
     [90, 97, 122, 48, 49, 50, 51, 57],
     [65, 90, 97, 122, 9, 13, 32, 45],
     [46, 47, 58, 59, 95, 48, 57, 65],
     [90, 97, 122, 9, 13, 32, 45, 46],
     [47, 58, 59, 95, 48, 57, 65, 90],
     [97, 122, 9, 13, 32, 45, 46, 47],
     [58, 59, 95, 48, 57, 65, 90, 97],
     [122, 9, 13, 32, 45, 46, 47, 53],
     [58, 59, 95, 48, 52, 54, 57, 65],
     [90, 97, 122, 9, 13, 32, 45, 46],
     [47, 58, 59, 95, 48, 53, 54, 57],
     [65, 90, 97, 122, 45, 46, 95, 48],
     [57, 65, 90, 97, 122, 45, 46, 95],
     [48, 57, 65, 90, 97, 122, 45, 46],
     [53, 95, 48, 52, 54, 57, 65, 90],
     [97, 122, 45, 46, 95, 48, 53, 54],
     [57, 65, 90, 97, 122, 45, 46, 95],
     [48, 57, 65, 90, 97, 122, 45, 46],
     [95, 48, 57, 65, 90, 97, 122, 45],
     [46, 53, 95, 48, 52, 54, 57, 65],
     [90, 97, 122, 45, 46, 95, 48, 53],
     [54, 57, 65, 90, 97, 122, 45, 46],
     [95, 48, 57, 65, 90, 97, 122, 45],
     [46, 95, 48, 57, 65, 90, 97, 122],
     [45, 46, 53, 95, 48, 52, 54, 57],
     [65, 90, 97, 122, 45, 46, 95, 48],
     [53, 54, 57, 65, 90, 97, 122, 58],
     [48, 57, 65, 70, 97, 102, 58, 48],
     [57, 65, 70, 97, 102, 58, 48, 57],
     [65, 70, 97, 102, 58, 48, 57, 65],
     [70, 97, 102, 58, 58, 48, 57, 65],
     [70, 97, 102, 58, 48, 57, 65, 70],
     [97, 102, 58, 48, 57, 65, 70, 97],
     [102, 58, 48, 57, 65, 70, 97, 102],
     [58, 58, 48, 57, 65, 70, 97, 102],
     [58, 48, 57, 65, 70, 97, 102, 58],
     [48, 57, 65, 70, 97, 102, 58, 48],
     [57, 65, 70, 97, 102, 58, 58, 48],
     [57, 65, 70, 97, 102, 58, 48, 57],
     [65, 70, 97, 102, 58, 48, 57, 65],
     [70, 97, 102, 58, 48, 57, 65, 70],
     [97, 102, 58, 58, 48, 57, 65, 70],
     [97, 102, 58, 48, 57, 65, 70, 97],
     [102, 58, 48, 57, 65, 70, 97, 102],
     [58, 48, 57, 65, 70, 97, 102, 58],
     [58, 48, 57, 65, 70, 97, 102, 58],
     [48, 57, 65, 70, 97, 102, 58, 48],
     [57, 65, 70, 97, 102, 58, 48, 57],
     [65, 70, 97, 102, 58, 48, 49, 50],
     [58, 51, 57, 65, 70, 97, 102, 46],
     [58, 48, 57, 65, 70, 97, 102, 48],
     [49, 50, 51, 57, 46, 48, 49, 50],
     [51, 57, 46, 48, 49, 50, 51, 57],
     [93, 9, 13, 32, 47, 58, 59, 93],
     [48, 57, 93, 48, 57, 53, 93, 48],
     [52, 54, 57, 93, 48, 53, 46, 48],
     [57, 46, 48, 57, 46, 53, 48, 52],
     [54, 57, 46, 48, 53, 46, 48, 57],
     [46, 48, 57, 46, 53, 48, 52, 54],
     [57, 46, 48, 53, 58, 48, 57, 65],
     [70, 97, 102, 58, 48, 57, 65, 70],
     [97, 102, 58, 58, 48, 57, 65, 70],
     [97, 102, 93, 48, 57, 65, 70, 97],
     [102, 93, 48, 57, 65, 70, 97, 102],
     [93, 48, 57, 65, 70, 97, 102, 46],
     [58, 48, 57, 65, 70, 97, 102, 46],
     [58, 48, 57, 65, 70, 97, 102, 46],
     [58, 48, 57, 65, 70, 97, 102, 46],
     [53, 58, 48, 52, 54, 57, 65, 70],
     [97, 102, 46, 58, 48, 53, 54, 57],
     [65, 70, 97, 102, 46, 58, 48, 57],
     [65, 70, 97, 102, 46, 58, 48, 57],
     [65, 70, 97, 102, 93, 48, 57, 65],
     [70, 97, 102, 58, 48, 57, 65, 70],
     [97, 102, 48, 49, 50, 93, 51, 57],
     [65, 70, 97, 102, 46, 58, 93, 48],
     [57, 65, 70, 97, 102, 58, 93, 48],
     [57, 65, 70, 97, 102, 58, 93, 48],
     [57, 65, 70, 97, 102, 58, 93, 48],
     [57, 65, 70, 97, 102, 46, 58, 93],
     [48, 57, 65, 70, 97, 102, 46, 58],
     [93, 48, 57, 65, 70, 97, 102, 46],
     [58, 93, 48, 57, 65, 70, 97, 102],
     [46, 53, 58, 93, 48, 52, 54, 57],
     [65, 70, 97, 102, 46, 58, 93, 48],
     [53, 54, 57, 65, 70, 97, 102, 46],
     [58, 93, 48, 57, 65, 70, 97, 102],
     [46, 58, 93, 48, 57, 65, 70, 97],
     [102, 58, 93, 48, 57, 65, 70, 97],
     [102, 48, 49, 50, 93, 51, 57, 65],
     [70, 97, 102, 46, 58, 93, 48, 57],
     [65, 70, 97, 102, 58, 93, 48, 57],
     [65, 70, 97, 102, 58, 93, 48, 57],
     [65, 70, 97, 102, 58, 93, 48, 49],
     [50, 51, 57, 65, 70, 97, 102, 46],
     [58, 93, 48, 57, 65, 70, 97, 102],
     [46, 58, 93, 48, 57, 65, 70, 97],
     [102, 46, 58, 93, 48, 57, 65, 70],
     [97, 102, 46, 53, 58, 93, 48, 52],
     [54, 57, 65, 70, 97, 102, 46, 58],
     [93, 48, 53, 54, 57, 65, 70, 97],
     [102, 46, 58, 93, 48, 57, 65, 70],
     [97, 102, 46, 58, 93, 48, 57, 65],
     [70, 97, 102, 58, 93, 48, 57, 65],
     [70, 97, 102, 48, 49, 50, 93, 51],
     [57, 65, 70, 97, 102, 46, 58, 93],
     [48, 57, 65, 70, 97, 102, 58, 93],
     [48, 57, 65, 70, 97, 102, 58, 93],
     [48, 57, 65, 70, 97, 102, 58, 93],
     [48, 49, 50, 51, 57, 65, 70, 97],
     [102, 46, 58, 93, 48, 57, 65, 70],
     [97, 102, 46, 58, 93, 48, 57, 65],
     [70, 97, 102, 46, 58, 93, 48, 57],
     [65, 70, 97, 102, 46, 53, 58, 93],
     [48, 52, 54, 57, 65, 70, 97, 102],
     [46, 58, 93, 48, 53, 54, 57, 65]]"

definition smp_trans_keys_21 :: "int list list" where
  "smp_trans_keys_21 =
    [[70, 97, 102, 46, 58, 93, 48, 57],
     [65, 70, 97, 102, 46, 58, 93, 48],
     [57, 65, 70, 97, 102, 58, 93, 48],
     [57, 65, 70, 97, 102, 48, 49, 50],
     [93, 51, 57, 65, 70, 97, 102, 46],
     [58, 93, 48, 57, 65, 70, 97, 102],
     [58, 93, 48, 57, 65, 70, 97, 102],
     [58, 93, 48, 57, 65, 70, 97, 102],
     [58, 93, 48, 49, 50, 51, 57, 65],
     [70, 97, 102, 46, 58, 93, 48, 57],
     [65, 70, 97, 102, 46, 58, 93, 48],
     [57, 65, 70, 97, 102, 46, 58, 93],
     [48, 57, 65, 70, 97, 102, 46, 53],
     [58, 93, 48, 52, 54, 57, 65, 70],
     [97, 102, 46, 58, 93, 48, 53, 54],
     [57, 65, 70, 97, 102, 46, 58, 93],
     [48, 57, 65, 70, 97, 102, 46, 58],
     [93, 48, 57, 65, 70, 97, 102, 58],
     [93, 48, 57, 65, 70, 97, 102, 48],
     [49, 50, 93, 51, 57, 65, 70, 97],
     [102, 46, 58, 93, 48, 57, 65, 70],
     [97, 102, 58, 93, 48, 57, 65, 70],
     [97, 102, 58, 93, 48, 57, 65, 70],
     [97, 102, 58, 93, 48, 49, 50, 51],
     [57, 65, 70, 97, 102, 46, 58, 93],
     [48, 57, 65, 70, 97, 102, 46, 58],
     [93, 48, 57, 65, 70, 97, 102, 46],
     [58, 93, 48, 57, 65, 70, 97, 102],
     [46, 53, 58, 93, 48, 52, 54, 57],
     [65, 70, 97, 102, 46, 58, 93, 48],
     [53, 54, 57, 65, 70, 97, 102, 46],
     [58, 93, 48, 57, 65, 70, 97, 102],
     [46, 58, 93, 48, 57, 65, 70, 97],
     [102, 58, 93, 48, 57, 65, 70, 97],
     [102, 58, 48, 49, 50, 93, 51, 57],
     [65, 70, 97, 102, 46, 58, 93, 48],
     [57, 65, 70, 97, 102, 58, 93, 48],
     [57, 65, 70, 97, 102, 58, 93, 48],
     [57, 65, 70, 97, 102, 58, 93, 48],
     [49, 50, 51, 57, 65, 70, 97, 102],
     [46, 58, 93, 48, 57, 65, 70, 97],
     [102, 46, 58, 93, 48, 57, 65, 70],
     [97, 102, 46, 58, 93, 48, 57, 65],
     [70, 97, 102, 46, 53, 58, 93, 48],
     [52, 54, 57, 65, 70, 97, 102, 46],
     [58, 93, 48, 53, 54, 57, 65, 70],
     [97, 102, 46, 58, 93, 48, 57, 65],
     [70, 97, 102, 46, 58, 93, 48, 57],
     [65, 70, 97, 102, 58, 93, 48, 57],
     [65, 70, 97, 102, 48, 57, 65, 70],
     [97, 102, 48, 57, 65, 70, 97, 102],
     [9, 13, 32, 33, 37, 47, 58, 59],
     [61, 64, 95, 126, 36, 43, 45, 57],
     [65, 90, 97, 122, 48, 57, 65, 70],
     [97, 102, 48, 57, 65, 70, 97, 102],
     [9, 13, 32, 33, 37, 59, 61, 91],
     [95, 126, 36, 43, 45, 58, 64, 90],
     [97, 122, 9, 13, 32, 33, 37, 39],
     [42, 43, 58, 60, 73, 105, 126, 45],
     [46, 48, 57, 65, 90, 95, 96, 97],
     [122, 9, 13, 32, 33, 37, 39, 42],
     [43, 58, 60, 80, 112, 126, 45, 46],
     [48, 57, 65, 90, 95, 96, 97, 122],
     [9, 13, 32, 33, 37, 39, 42, 43],
     [58, 60, 83, 115, 126, 45, 46, 48],
     [57, 65, 90, 95, 96, 97, 122, 33],
     [37, 48, 49, 50, 61, 91, 95, 126],
     [35, 43, 45, 47, 51, 57, 65, 90],
     [97, 122, 33, 37, 58, 61, 64, 95],
     [126, 35, 43, 45, 57, 65, 90, 97],
     [122, 48, 57, 65, 70, 97, 102, 48],
     [57, 65, 70, 97, 102, 33, 37, 61],
     [64, 95, 126, 36, 43, 45, 46, 48],
     [57, 65, 90, 97, 122, 48, 57, 65],
     [70, 97, 102, 48, 57, 65, 70, 97],
     [102, 48, 49, 50, 91, 51, 57, 65],
     [90, 97, 122, 45, 46, 95, 48, 57],
     [65, 90, 97, 122, 45, 95, 48, 57],
     [65, 90, 97, 122, 45, 46, 95, 48],
     [57, 65, 90, 97, 122, 48, 57, 65],
     [90, 97, 122, 9, 13, 32, 45, 46],
     [58, 59, 95, 48, 57, 65, 90, 97],
     [122, 45, 95, 48, 57, 65, 90, 97],
     [122, 9, 13, 32, 58, 59, 48, 57],
     [65, 90, 97, 122, 48, 54, 49, 53],
     [55, 57, 48, 49, 57, 48, 49, 57],
     [49, 57, 9, 13, 32, 59, 9, 13],
     [32, 59, 48, 57, 9, 13, 32, 59],
     [48, 57, 9, 13, 32, 59, 48, 57],
     [9, 13, 32, 59, 48, 57, 9, 13],
     [32, 53, 59, 48, 52, 54, 57, 9],
     [13, 32, 53, 59, 48, 52, 54, 57],
     [9, 13, 32, 51, 59, 48, 50, 52],
     [57, 9, 13, 32, 59, 48, 53, 48],
     [49, 50, 51, 57, 65, 90, 97, 122],
     [45, 46, 95, 48, 57, 65, 90, 97],
     [122, 48, 49, 50, 51, 57, 65, 90],
     [97, 122, 45, 46, 95, 48, 57, 65],
     [90, 97, 122, 48, 49, 50, 51, 57],
     [65, 90, 97, 122, 9, 13, 32, 45],
     [46, 58, 59, 95, 48, 57, 65, 90],
     [97, 122, 9, 13, 32, 45, 46, 58],
     [59, 95, 48, 57, 65, 90, 97, 122],
     [9, 13, 32, 45, 46, 58, 59, 95],
     [48, 57, 65, 90, 97, 122, 9, 13],
     [32, 45, 46, 53, 58, 59, 95, 48],
     [52, 54, 57, 65, 90, 97, 122, 9],
     [13, 32, 45, 46, 58, 59, 95, 48],
     [53, 54, 57, 65, 90, 97, 122, 45],
     [46, 95, 48, 57, 65, 90, 97, 122],
     [45, 46, 95, 48, 57, 65, 90, 97],
     [122, 45, 46, 53, 95, 48, 52, 54],
     [57, 65, 90, 97, 122, 45, 46, 95],
     [48, 53, 54, 57, 65, 90, 97, 122],
     [45, 46, 95, 48, 57, 65, 90, 97],
     [122, 45, 46, 95, 48, 57, 65, 90],
     [97, 122, 45, 46, 53, 95, 48, 52],
     [54, 57, 65, 90, 97, 122, 45, 46],
     [95, 48, 53, 54, 57, 65, 90, 97],
     [122, 45, 46, 95, 48, 57, 65, 90],
     [97, 122, 45, 46, 95, 48, 57, 65],
     [90, 97, 122, 45, 46, 53, 95, 48],
     [52, 54, 57, 65, 90, 97, 122, 45],
     [46, 95, 48, 53, 54, 57, 65, 90],
     [97, 122, 58, 48, 57, 65, 70, 97],
     [102, 58, 48, 57, 65, 70, 97, 102],
     [58, 48, 57, 65, 70, 97, 102, 58],
     [48, 57, 65, 70, 97, 102, 58, 58],
     [48, 57, 65, 70, 97, 102, 58, 48],
     [57, 65, 70, 97, 102, 58, 48, 57],
     [65, 70, 97, 102, 58, 48, 57, 65],
     [70, 97, 102, 58, 58, 48, 57, 65],
     [70, 97, 102, 58, 48, 57, 65, 70],
     [97, 102, 58, 48, 57, 65, 70, 97],
     [102, 58, 48, 57, 65, 70, 97, 102],
     [58, 58, 48, 57, 65, 70, 97, 102],
     [58, 48, 57, 65, 70, 97, 102, 58],
     [48, 57, 65, 70, 97, 102, 58, 48],
     [57, 65, 70, 97, 102, 58, 58, 48],
     [57, 65, 70, 97, 102, 58, 48, 57],
     [65, 70, 97, 102, 58, 48, 57, 65],
     [70, 97, 102, 58, 48, 57, 65, 70],
     [97, 102, 58, 58, 48, 57, 65, 70],
     [97, 102, 58, 48, 57, 65, 70, 97],
     [102, 58, 48, 57, 65, 70, 97, 102],
     [58, 48, 57, 65, 70, 97, 102, 58],
     [48, 49, 50, 58, 51, 57, 65, 70],
     [97, 102, 46, 58, 48, 57, 65, 70],
     [97, 102, 48, 49, 50, 51, 57, 46],
     [48, 49, 50, 51, 57, 46, 48, 49]]"

definition smp_trans_keys_22 :: "int list list" where
  "smp_trans_keys_22 =
    [[50, 51, 57, 93, 9, 13, 32, 58],
     [59, 93, 48, 57, 93, 48, 57, 53],
     [93, 48, 52, 54, 57, 93, 48, 53],
     [46, 48, 57, 46, 48, 57, 46, 53],
     [48, 52, 54, 57, 46, 48, 53, 46],
     [48, 57, 46, 48, 57, 46, 53, 48],
     [52, 54, 57, 46, 48, 53, 58, 48],
     [57, 65, 70, 97, 102, 58, 48, 57],
     [65, 70, 97, 102, 58, 58, 48, 57],
     [65, 70, 97, 102, 93, 48, 57, 65],
     [70, 97, 102, 93, 48, 57, 65, 70],
     [97, 102, 93, 48, 57, 65, 70, 97],
     [102, 46, 58, 48, 57, 65, 70, 97],
     [102, 46, 58, 48, 57, 65, 70, 97],
     [102, 46, 58, 48, 57, 65, 70, 97],
     [102, 46, 53, 58, 48, 52, 54, 57],
     [65, 70, 97, 102, 46, 58, 48, 53],
     [54, 57, 65, 70, 97, 102, 46, 58],
     [48, 57, 65, 70, 97, 102, 46, 58],
     [48, 57, 65, 70, 97, 102, 93, 48],
     [57, 65, 70, 97, 102, 58, 48, 57],
     [65, 70, 97, 102, 48, 49, 50, 93],
     [51, 57, 65, 70, 97, 102, 46, 58],
     [93, 48, 57, 65, 70, 97, 102, 58],
     [93, 48, 57, 65, 70, 97, 102, 58],
     [93, 48, 57, 65, 70, 97, 102, 58],
     [93, 48, 57, 65, 70, 97, 102, 46],
     [58, 93, 48, 57, 65, 70, 97, 102],
     [46, 58, 93, 48, 57, 65, 70, 97],
     [102, 46, 58, 93, 48, 57, 65, 70],
     [97, 102, 46, 53, 58, 93, 48, 52],
     [54, 57, 65, 70, 97, 102, 46, 58],
     [93, 48, 53, 54, 57, 65, 70, 97],
     [102, 46, 58, 93, 48, 57, 65, 70],
     [97, 102, 46, 58, 93, 48, 57, 65],
     [70, 97, 102, 58, 93, 48, 57, 65],
     [70, 97, 102, 48, 49, 50, 93, 51],
     [57, 65, 70, 97, 102, 46, 58, 93],
     [48, 57, 65, 70, 97, 102, 58, 93],
     [48, 57, 65, 70, 97, 102, 58, 93],
     [48, 57, 65, 70, 97, 102, 58, 93],
     [48, 49, 50, 51, 57, 65, 70, 97],
     [102, 46, 58, 93, 48, 57, 65, 70],
     [97, 102, 46, 58, 93, 48, 57, 65],
     [70, 97, 102, 46, 58, 93, 48, 57],
     [65, 70, 97, 102, 46, 53, 58, 93],
     [48, 52, 54, 57, 65, 70, 97, 102],
     [46, 58, 93, 48, 53, 54, 57, 65],
     [70, 97, 102, 46, 58, 93, 48, 57],
     [65, 70, 97, 102, 46, 58, 93, 48],
     [57, 65, 70, 97, 102, 58, 93, 48],
     [57, 65, 70, 97, 102, 48, 49, 50],
     [93, 51, 57, 65, 70, 97, 102, 46],
     [58, 93, 48, 57, 65, 70, 97, 102],
     [58, 93, 48, 57, 65, 70, 97, 102],
     [58, 93, 48, 57, 65, 70, 97, 102],
     [58, 93, 48, 49, 50, 51, 57, 65],
     [70, 97, 102, 46, 58, 93, 48, 57],
     [65, 70, 97, 102, 46, 58, 93, 48],
     [57, 65, 70, 97, 102, 46, 58, 93],
     [48, 57, 65, 70, 97, 102, 46, 53],
     [58, 93, 48, 52, 54, 57, 65, 70],
     [97, 102, 46, 58, 93, 48, 53, 54],
     [57, 65, 70, 97, 102, 46, 58, 93],
     [48, 57, 65, 70, 97, 102, 46, 58],
     [93, 48, 57, 65, 70, 97, 102, 58],
     [93, 48, 57, 65, 70, 97, 102, 48],
     [49, 50, 93, 51, 57, 65, 70, 97],
     [102, 46, 58, 93, 48, 57, 65, 70],
     [97, 102, 58, 93, 48, 57, 65, 70],
     [97, 102, 58, 93, 48, 57, 65, 70],
     [97, 102, 58, 93, 48, 49, 50, 51],
     [57, 65, 70, 97, 102, 46, 58, 93],
     [48, 57, 65, 70, 97, 102, 46, 58],
     [93, 48, 57, 65, 70, 97, 102, 46],
     [58, 93, 48, 57, 65, 70, 97, 102],
     [46, 53, 58, 93, 48, 52, 54, 57],
     [65, 70, 97, 102, 46, 58, 93, 48],
     [53, 54, 57, 65, 70, 97, 102, 46],
     [58, 93, 48, 57, 65, 70, 97, 102],
     [46, 58, 93, 48, 57, 65, 70, 97],
     [102, 58, 93, 48, 57, 65, 70, 97],
     [102, 48, 49, 50, 93, 51, 57, 65],
     [70, 97, 102, 46, 58, 93, 48, 57],
     [65, 70, 97, 102, 58, 93, 48, 57],
     [65, 70, 97, 102, 58, 93, 48, 57],
     [65, 70, 97, 102, 58, 93, 48, 49],
     [50, 51, 57, 65, 70, 97, 102, 46],
     [58, 93, 48, 57, 65, 70, 97, 102],
     [46, 58, 93, 48, 57, 65, 70, 97],
     [102, 46, 58, 93, 48, 57, 65, 70],
     [97, 102, 46, 53, 58, 93, 48, 52],
     [54, 57, 65, 70, 97, 102, 46, 58],
     [93, 48, 53, 54, 57, 65, 70, 97],
     [102, 46, 58, 93, 48, 57, 65, 70],
     [97, 102, 46, 58, 93, 48, 57, 65],
     [70, 97, 102, 58, 93, 48, 57, 65],
     [70, 97, 102, 58, 48, 49, 50, 93],
     [51, 57, 65, 70, 97, 102, 46, 58],
     [93, 48, 57, 65, 70, 97, 102, 58],
     [93, 48, 57, 65, 70, 97, 102, 58],
     [93, 48, 57, 65, 70, 97, 102, 58],
     [93, 48, 49, 50, 51, 57, 65, 70],
     [97, 102, 46, 58, 93, 48, 57, 65],
     [70, 97, 102, 46, 58, 93, 48, 57],
     [65, 70, 97, 102, 46, 58, 93, 48],
     [57, 65, 70, 97, 102, 46, 53, 58],
     [93, 48, 52, 54, 57, 65, 70, 97],
     [102, 46, 58, 93, 48, 53, 54, 57],
     [65, 70, 97, 102, 46, 58, 93, 48],
     [57, 65, 70, 97, 102, 46, 58, 93],
     [48, 57, 65, 70, 97, 102, 58, 93],
     [48, 57, 65, 70, 97, 102, 33, 37],
     [45, 46, 47, 58, 61, 64, 95, 126],
     [35, 43, 48, 57, 65, 90, 97, 122],
     [33, 37, 45, 58, 61, 64, 95, 126],
     [35, 43, 46, 47, 48, 57, 65, 90],
     [97, 122, 33, 37, 45, 46, 47, 58],
     [61, 64, 95, 126, 35, 43, 48, 57],
     [65, 90, 97, 122, 33, 37, 58, 61],
     [64, 95, 126, 35, 43, 45, 47, 48],
     [57, 65, 90, 97, 122, 9, 13, 32],
     [33, 37, 45, 46, 47, 58, 59, 61],
     [64, 95, 126, 35, 43, 48, 57, 65],
     [90, 97, 122, 33, 37, 45, 58, 61],
     [64, 95, 126, 35, 43, 46, 47, 48],
     [57, 65, 90, 97, 122, 9, 13, 32],
     [33, 37, 58, 59, 61, 64, 95, 126],
     [35, 43, 45, 47, 48, 57, 65, 90],
     [97, 122, 33, 37, 48, 54, 61, 64],
     [95, 126, 36, 43, 45, 46, 49, 53],
     [55, 57, 65, 90, 97, 122, 33, 37],
     [48, 61, 64, 95, 126, 36, 43, 45],
     [46, 49, 57, 65, 90, 97, 122, 33],
     [37, 48, 61, 64, 95, 126, 36, 43],
     [45, 46, 49, 57, 65, 90, 97, 122],
     [33, 37, 48, 61, 64, 95, 126, 36],
     [43, 45, 46, 49, 57, 65, 90, 97],
     [122, 9, 13, 32, 33, 37, 59, 61],
     [64, 95, 126, 36, 43, 45, 46, 48],
     [57, 65, 90, 97, 122, 9, 13, 32],
     [33, 37, 59, 61, 64, 95, 126, 36],
     [43, 45, 46, 48, 57, 65, 90, 97],
     [122, 9, 13, 32, 33, 37, 59, 61],
     [64, 95, 126, 36, 43, 45, 46, 48],
     [57, 65, 90, 97, 122, 9, 13, 32],
     [33, 37, 59, 61, 64, 95, 126, 36],
     [43, 45, 46, 48, 57, 65, 90, 97],
     [122, 9, 13, 32, 33, 37, 59, 61],
     [64, 95, 126, 36, 43, 45, 46, 48]]"

definition smp_trans_keys_23 :: "int list list" where
  "smp_trans_keys_23 =
    [[57, 65, 90, 97, 122, 9, 13, 32],
     [33, 37, 53, 59, 61, 64, 95, 126],
     [36, 43, 45, 46, 48, 52, 54, 57],
     [65, 90, 97, 122, 9, 13, 32, 33],
     [37, 53, 59, 61, 64, 95, 126, 36],
     [43, 45, 46, 48, 52, 54, 57, 65],
     [90, 97, 122, 9, 13, 32, 33, 37],
     [51, 59, 61, 64, 95, 126, 36, 43],
     [45, 46, 48, 50, 52, 57, 65, 90],
     [97, 122, 9, 13, 32, 33, 37, 59],
     [61, 64, 95, 126, 36, 43, 45, 46],
     [48, 53, 54, 57, 65, 90, 97, 122],
     [33, 37, 48, 49, 50, 58, 61, 64],
     [95, 126, 35, 43, 45, 47, 51, 57],
     [65, 90, 97, 122, 33, 37, 45, 46],
     [47, 58, 61, 64, 95, 126, 35, 43],
     [48, 57, 65, 90, 97, 122, 33, 37],
     [48, 49, 50, 58, 61, 64, 95, 126],
     [35, 43, 45, 47, 51, 57, 65, 90],
     [97, 122, 33, 37, 45, 46, 47, 58],
     [61, 64, 95, 126, 35, 43, 48, 57],
     [65, 90, 97, 122, 33, 37, 48, 49],
     [50, 58, 61, 64, 95, 126, 35, 43],
     [45, 47, 51, 57, 65, 90, 97, 122],
     [9, 13, 32, 33, 37, 45, 46, 47],
     [58, 59, 61, 64, 95, 126, 35, 43],
     [48, 57, 65, 90, 97, 122, 9, 13],
     [32, 33, 37, 45, 46, 47, 58, 59],
     [61, 64, 95, 126, 35, 43, 48, 57],
     [65, 90, 97, 122, 9, 13, 32, 33],
     [37, 45, 46, 47, 58, 59, 61, 64],
     [95, 126, 35, 43, 48, 57, 65, 90],
     [97, 122, 9, 13, 32, 33, 37, 45],
     [46, 47, 53, 58, 59, 61, 64, 95],
     [126, 35, 43, 48, 52, 54, 57, 65],
     [90, 97, 122, 9, 13, 32, 33, 37],
     [45, 46, 47, 58, 59, 61, 64, 95],
     [126, 35, 43, 48, 53, 54, 57, 65],
     [90, 97, 122, 33, 37, 45, 46, 47],
     [58, 61, 64, 95, 126, 35, 43, 48],
     [57, 65, 90, 97, 122, 33, 37, 45],
     [46, 47, 58, 61, 64, 95, 126, 35],
     [43, 48, 57, 65, 90, 97, 122, 33],
     [37, 45, 46, 47, 53, 58, 61, 64],
     [95, 126, 35, 43, 48, 52, 54, 57],
     [65, 90, 97, 122, 33, 37, 45, 46],
     [47, 58, 61, 64, 95, 126, 35, 43],
     [48, 53, 54, 57, 65, 90, 97, 122],
     [33, 37, 45, 46, 47, 58, 61, 64],
     [95, 126, 35, 43, 48, 57, 65, 90],
     [97, 122, 33, 37, 45, 46, 47, 58],
     [61, 64, 95, 126, 35, 43, 48, 57],
     [65, 90, 97, 122, 33, 37, 45, 46],
     [47, 53, 58, 61, 64, 95, 126, 35],
     [43, 48, 52, 54, 57, 65, 90, 97],
     [122, 33, 37, 45, 46, 47, 58, 61],
     [64, 95, 126, 35, 43, 48, 53, 54],
     [57, 65, 90, 97, 122, 33, 37, 45],
     [46, 47, 58, 61, 64, 95, 126, 35],
     [43, 48, 57, 65, 90, 97, 122, 33],
     [37, 45, 46, 47, 58, 61, 64, 95],
     [126, 35, 43, 48, 57, 65, 90, 97],
     [122, 33, 37, 45, 46, 47, 53, 58],
     [61, 64, 95, 126, 35, 43, 48, 52],
     [54, 57, 65, 90, 97, 122, 33, 37],
     [45, 46, 47, 58, 61, 64, 95, 126],
     [35, 43, 48, 53, 54, 57, 65, 90],
     [97, 122, 9, 13, 32, 33, 37, 39],
     [42, 43, 58, 60, 126, 45, 46, 48],
     [57, 65, 90, 95, 96, 97, 122, 9],
     [13, 32, 33, 37, 39, 42, 43, 58],
     [60, 69, 101, 126, 45, 46, 48, 57],
     [65, 90, 95, 96, 97, 122, 9, 13],
     [32, 33, 37, 39, 42, 43, 58, 60],
     [76, 108, 126, 45, 46, 48, 57, 65],
     [90, 95, 96, 97, 122, 9, 13, 32],
     [33, 37, 39, 42, 43, 58, 60, 126],
     [45, 46, 48, 57, 65, 90, 95, 96],
     [97, 122, 35, 42, 43, 40, 41, 45],
     [46, 48, 57, 65, 70, 97, 102, 9],
     [13, 32, 35, 59, 40, 42, 45, 46],
     [48, 57, 65, 70, 97, 102, 35, 42],
     [40, 41, 45, 46, 48, 57, 65, 70],
     [97, 102, 40, 41, 45, 46, 48, 57],
     [9, 13, 32, 59, 40, 41, 45, 46],
     [48, 57, 9, 32, 33, 37, 39, 58],
     [126, 42, 43, 45, 46, 48, 57, 65],
     [90, 95, 122, 9, 32, 33, 37, 39],
     [58, 85, 117, 126, 42, 43, 45, 46],
     [48, 57, 65, 90, 95, 122, 9, 32],
     [33, 37, 39, 58, 84, 116, 126, 42],
     [43, 45, 46, 48, 57, 65, 90, 95],
     [122, 9, 32, 33, 37, 39, 58, 69],
     [101, 126, 42, 43, 45, 46, 48, 57],
     [65, 90, 95, 122, 9, 32, 33, 37],
     [39, 58, 126, 42, 43, 45, 46, 48],
     [57, 65, 90, 95, 122, 9, 32, 58],
     [9, 13, 32, 33, 34, 37, 39, 60],
     [126, 42, 43, 45, 46, 48, 57, 65],
     [90, 95, 122, 10, 9, 32, 9, 13],
     [32, 33, 34, 37, 39, 60, 126, 42],
     [43, 45, 46, 48, 57, 65, 90, 95],
     [122, 10, 9, 32, 9, 32, 60, 83],
     [115, 73, 105, 80, 112, 58, 83, 115],
     [33, 37, 48, 49, 50, 59, 61, 63],
     [91, 95, 126, 35, 47, 51, 57, 65],
     [90, 97, 122, 33, 37, 58, 61, 64],
     [95, 126, 35, 59, 63, 90, 97, 122],
     [48, 57, 65, 70, 97, 102, 48, 57],
     [65, 70, 97, 102, 33, 37, 61, 64],
     [95, 126, 36, 46, 48, 57, 65, 90],
     [97, 122, 48, 57, 65, 70, 97, 102],
     [48, 57, 65, 70, 97, 102, 48, 49],
     [50, 91, 51, 57, 65, 90, 97, 122],
     [45, 46, 95, 48, 57, 65, 90, 97],
     [122, 45, 95, 48, 57, 65, 90, 97],
     [122, 45, 46, 95, 48, 57, 65, 90],
     [97, 122, 48, 57, 65, 90, 97, 122],
     [45, 46, 58, 59, 62, 63, 95, 48],
     [57, 65, 90, 97, 122, 45, 95, 48],
     [57, 65, 90, 97, 122, 58, 59, 62],
     [63, 48, 57, 65, 90, 97, 122, 48],
     [54, 49, 53, 55, 57, 48, 49, 57],
     [48, 49, 57, 49, 57, 59, 62, 63],
     [33, 37, 76, 79, 84, 93, 95, 108],
     [111, 116, 126, 36, 43, 45, 58, 65],
     [91, 97, 122, 33, 37, 59, 61, 62],
     [63, 93, 95, 126, 36, 43, 45, 58],
     [65, 91, 97, 122, 48, 57, 65, 70],
     [97, 102, 48, 57, 65, 70, 97, 102],
     [33, 37, 59, 61, 62, 63, 93, 95],
     [126, 36, 43, 45, 58, 65, 91, 97],
     [122, 33, 37, 59, 62, 63, 93, 95],
     [126, 36, 43, 45, 58, 65, 91, 97],
     [122, 48, 57, 65, 70, 97, 102, 48],
     [57, 65, 70, 97, 102, 9, 13, 32],
     [44, 59, 9, 13, 32, 44, 59, 10],
     [9, 32, 9, 32, 44, 59, 9, 13],
     [32, 33, 34, 37, 39, 60, 126, 42],
     [43, 45, 46, 48, 57, 65, 90, 95],
     [122, 10, 9, 32, 9, 13, 32, 33],
     [34, 37, 39, 60, 126, 42, 43, 45],
     [46, 48, 57, 65, 90, 95, 122, 9],
     [13, 32, 33, 37, 39, 60, 126, 42],
     [43, 45, 46, 48, 57, 65, 90, 95],
     [122, 9, 13, 32, 33, 37, 39, 60],
     [126, 42, 43, 45, 46, 48, 57, 65],
     [90, 95, 122, 10, 9, 32, 9, 32],
     [33, 37, 39, 60, 126, 42, 43, 45],
     [46, 48, 57, 65, 90, 95, 122, 9]]"

definition smp_trans_keys_24 :: "int list list" where
  "smp_trans_keys_24 =
    [[13, 34, 92, -64, -33, -32, -17, -16],
     [-9, -8, -5, -4, -3, 32, 126, -128],
     [-65, -128, -65, -128, -65, -128, -65, -128],
     [-65, 10, 9, 32, 9, 13, 32, 60],
     [9, 13, 32, 60, 0, 9, 11, 12],
     [14, 127, 9, 13, 32, 33, 37, 39],
     [126, 42, 43, 45, 46, 48, 57, 65],
     [90, 95, 122, 10, 9, 32, 9, 32],
     [33, 37, 39, 126, 42, 43, 45, 46],
     [48, 57, 65, 90, 95, 122, 9, 13],
     [32, 33, 37, 39, 44, 59, 61, 126],
     [42, 46, 48, 57, 65, 90, 95, 122],
     [9, 13, 32, 44, 59, 61, 10, 9],
     [32, 9, 32, 44, 59, 61, 9, 13],
     [32, 33, 34, 37, 39, 91, 126, 42],
     [43, 45, 46, 48, 57, 65, 90, 95],
     [122, 10, 9, 32, 9, 32, 33, 34],
     [37, 39, 91, 126, 42, 43, 45, 46],
     [48, 57, 65, 90, 95, 122, 9, 13],
     [32, 33, 37, 39, 44, 59, 126, 42],
     [46, 48, 57, 65, 90, 95, 122, 10],
     [9, 13, 32, 33, 37, 39, 67, 70],
     [73, 75, 76, 77, 80, 82, 83, 84],
     [86, 99, 102, 105, 107, 108, 109, 112],
     [114, 115, 116, 118, 126, 42, 43, 45],
     [46, 48, 57, 65, 90, 95, 122, 9],
     [13, 34, 92, -64, -33, -32, -17, -16],
     [-9, -8, -5, -4, -3, 32, 126, -128],
     [-65, -128, -65, -128, -65, -128, -65, -128],
     [-65, 10, 9, 32, 0, 9, 11, 12],
     [14, 127, 58, 48, 57, 65, 70, 97],
     [102, 58, 48, 57, 65, 70, 97, 102],
     [58, 48, 57, 65, 70, 97, 102, 58],
     [48, 57, 65, 70, 97, 102, 58, 58],
     [48, 57, 65, 70, 97, 102, 58, 48],
     [57, 65, 70, 97, 102, 58, 48, 57],
     [65, 70, 97, 102, 58, 48, 57, 65],
     [70, 97, 102, 58, 58, 48, 57, 65],
     [70, 97, 102, 58, 48, 57, 65, 70],
     [97, 102, 58, 48, 57, 65, 70, 97],
     [102, 58, 48, 57, 65, 70, 97, 102],
     [58, 58, 48, 57, 65, 70, 97, 102],
     [58, 48, 57, 65, 70, 97, 102, 58],
     [48, 57, 65, 70, 97, 102, 58, 48],
     [57, 65, 70, 97, 102, 58, 58, 48],
     [57, 65, 70, 97, 102, 58, 48, 57],
     [65, 70, 97, 102, 58, 48, 57, 65],
     [70, 97, 102, 58, 48, 57, 65, 70],
     [97, 102, 58, 58, 48, 57, 65, 70],
     [97, 102, 58, 48, 57, 65, 70, 97],
     [102, 58, 48, 57, 65, 70, 97, 102],
     [58, 48, 57, 65, 70, 97, 102, 58],
     [48, 49, 50, 58, 51, 57, 65, 70],
     [97, 102, 46, 58, 48, 57, 65, 70],
     [97, 102, 48, 49, 50, 51, 57, 46],
     [48, 49, 50, 51, 57, 46, 48, 49],
     [50, 51, 57, 93, 93, 48, 57, 93],
     [48, 57, 53, 93, 48, 52, 54, 57],
     [93, 48, 53, 46, 48, 57, 46, 48],
     [57, 46, 53, 48, 52, 54, 57, 46],
     [48, 53, 46, 48, 57, 46, 48, 57],
     [46, 53, 48, 52, 54, 57, 46, 48],
     [53, 58, 48, 57, 65, 70, 97, 102],
     [58, 48, 57, 65, 70, 97, 102, 58],
     [58, 48, 57, 65, 70, 97, 102, 93],
     [48, 57, 65, 70, 97, 102, 93, 48],
     [57, 65, 70, 97, 102, 93, 48, 57],
     [65, 70, 97, 102, 46, 58, 48, 57],
     [65, 70, 97, 102, 46, 58, 48, 57],
     [65, 70, 97, 102, 46, 58, 48, 57],
     [65, 70, 97, 102, 46, 53, 58, 48],
     [52, 54, 57, 65, 70, 97, 102, 46],
     [58, 48, 53, 54, 57, 65, 70, 97],
     [102, 46, 58, 48, 57, 65, 70, 97],
     [102, 46, 58, 48, 57, 65, 70, 97],
     [102, 93, 48, 57, 65, 70, 97, 102],
     [58, 48, 57, 65, 70, 97, 102, 48],
     [49, 50, 93, 51, 57, 65, 70, 97],
     [102, 46, 58, 93, 48, 57, 65, 70],
     [97, 102, 58, 93, 48, 57, 65, 70],
     [97, 102, 58, 93, 48, 57, 65, 70],
     [97, 102, 58, 93, 48, 57, 65, 70],
     [97, 102, 46, 58, 93, 48, 57, 65],
     [70, 97, 102, 46, 58, 93, 48, 57],
     [65, 70, 97, 102, 46, 58, 93, 48],
     [57, 65, 70, 97, 102, 46, 53, 58],
     [93, 48, 52, 54, 57, 65, 70, 97],
     [102, 46, 58, 93, 48, 53, 54, 57],
     [65, 70, 97, 102, 46, 58, 93, 48],
     [57, 65, 70, 97, 102, 46, 58, 93],
     [48, 57, 65, 70, 97, 102, 58, 93],
     [48, 57, 65, 70, 97, 102, 48, 49],
     [50, 93, 51, 57, 65, 70, 97, 102],
     [46, 58, 93, 48, 57, 65, 70, 97],
     [102, 58, 93, 48, 57, 65, 70, 97],
     [102, 58, 93, 48, 57, 65, 70, 97],
     [102, 58, 93, 48, 49, 50, 51, 57],
     [65, 70, 97, 102, 46, 58, 93, 48],
     [57, 65, 70, 97, 102, 46, 58, 93],
     [48, 57, 65, 70, 97, 102, 46, 58],
     [93, 48, 57, 65, 70, 97, 102, 46],
     [53, 58, 93, 48, 52, 54, 57, 65],
     [70, 97, 102, 46, 58, 93, 48, 53],
     [54, 57, 65, 70, 97, 102, 46, 58],
     [93, 48, 57, 65, 70, 97, 102, 46],
     [58, 93, 48, 57, 65, 70, 97, 102],
     [58, 93, 48, 57, 65, 70, 97, 102],
     [48, 49, 50, 93, 51, 57, 65, 70],
     [97, 102, 46, 58, 93, 48, 57, 65],
     [70, 97, 102, 58, 93, 48, 57, 65],
     [70, 97, 102, 58, 93, 48, 57, 65],
     [70, 97, 102, 58, 93, 48, 49, 50],
     [51, 57, 65, 70, 97, 102, 46, 58],
     [93, 48, 57, 65, 70, 97, 102, 46],
     [58, 93, 48, 57, 65, 70, 97, 102],
     [46, 58, 93, 48, 57, 65, 70, 97],
     [102, 46, 53, 58, 93, 48, 52, 54],
     [57, 65, 70, 97, 102, 46, 58, 93],
     [48, 53, 54, 57, 65, 70, 97, 102],
     [46, 58, 93, 48, 57, 65, 70, 97],
     [102, 46, 58, 93, 48, 57, 65, 70],
     [97, 102, 58, 93, 48, 57, 65, 70],
     [97, 102, 48, 49, 50, 93, 51, 57],
     [65, 70, 97, 102, 46, 58, 93, 48],
     [57, 65, 70, 97, 102, 58, 93, 48],
     [57, 65, 70, 97, 102, 58, 93, 48],
     [57, 65, 70, 97, 102, 58, 93, 48],
     [49, 50, 51, 57, 65, 70, 97, 102],
     [46, 58, 93, 48, 57, 65, 70, 97],
     [102, 46, 58, 93, 48, 57, 65, 70],
     [97, 102, 46, 58, 93, 48, 57, 65],
     [70, 97, 102, 46, 53, 58, 93, 48],
     [52, 54, 57, 65, 70, 97, 102, 46],
     [58, 93, 48, 53, 54, 57, 65, 70],
     [97, 102, 46, 58, 93, 48, 57, 65],
     [70, 97, 102, 46, 58, 93, 48, 57],
     [65, 70, 97, 102, 58, 93, 48, 57],
     [65, 70, 97, 102, 48, 49, 50, 93],
     [51, 57, 65, 70, 97, 102, 46, 58],
     [93, 48, 57, 65, 70, 97, 102, 58],
     [93, 48, 57, 65, 70, 97, 102, 58],
     [93, 48, 57, 65, 70, 97, 102, 58],
     [93, 48, 49, 50, 51, 57, 65, 70],
     [97, 102, 46, 58, 93, 48, 57, 65],
     [70, 97, 102, 46, 58, 93, 48, 57],
     [65, 70, 97, 102, 46, 58, 93, 48],
     [57, 65, 70, 97, 102, 46, 53, 58],
     [93, 48, 52, 54, 57, 65, 70, 97],
     [102, 46, 58, 93, 48, 53, 54, 57],
     [65, 70, 97, 102, 46, 58, 93, 48]]"

definition smp_trans_keys_25 :: "int list list" where
  "smp_trans_keys_25 =
    [[57, 65, 70, 97, 102, 46, 58, 93],
     [48, 57, 65, 70, 97, 102, 58, 93],
     [48, 57, 65, 70, 97, 102, 58, 48],
     [49, 50, 93, 51, 57, 65, 70, 97],
     [102, 46, 58, 93, 48, 57, 65, 70],
     [97, 102, 58, 93, 48, 57, 65, 70],
     [97, 102, 58, 93, 48, 57, 65, 70],
     [97, 102, 58, 93, 48, 49, 50, 51],
     [57, 65, 70, 97, 102, 46, 58, 93],
     [48, 57, 65, 70, 97, 102, 46, 58],
     [93, 48, 57, 65, 70, 97, 102, 46],
     [58, 93, 48, 57, 65, 70, 97, 102],
     [46, 53, 58, 93, 48, 52, 54, 57],
     [65, 70, 97, 102, 46, 58, 93, 48],
     [53, 54, 57, 65, 70, 97, 102, 46],
     [58, 93, 48, 57, 65, 70, 97, 102],
     [46, 58, 93, 48, 57, 65, 70, 97],
     [102, 58, 93, 48, 57, 65, 70, 97],
     [102, 10, 9, 13, 32, 33, 37, 39],
     [67, 70, 73, 75, 76, 77, 80, 82],
     [83, 84, 86, 99, 102, 105, 107, 108],
     [109, 112, 114, 115, 116, 118, 126, 42],
     [43, 45, 46, 48, 57, 65, 90, 95],
     [122, 33, 36, 37, 63, 93, 95, 126],
     [39, 43, 45, 58, 65, 91, 97, 122],
     [33, 36, 37, 61, 63, 93, 95, 126],
     [39, 43, 45, 58, 65, 91, 97, 122],
     [48, 57, 65, 70, 97, 102, 48, 57],
     [65, 70, 97, 102, 33, 37, 38, 62],
     [63, 93, 95, 126, 36, 43, 45, 58],
     [65, 91, 97, 122, 48, 57, 65, 70],
     [97, 102, 48, 57, 65, 70, 97, 102],
     [33, 37, 93, 95, 126, 36, 43, 45],
     [58, 65, 91, 97, 122, 33, 37, 59],
     [61, 62, 63, 82, 93, 95, 114, 126],
     [36, 43, 45, 58, 65, 91, 97, 122],
     [33, 37, 59, 61, 62, 63, 93, 95],
     [126, 36, 43, 45, 58, 65, 91, 97],
     [122, 33, 37, 39, 47, 58, 59, 61],
     [62, 63, 91, 93, 96, 126, 36, 41],
     [42, 43, 45, 57, 65, 90, 95, 122],
     [33, 37, 39, 47, 58, 59, 62, 63],
     [91, 93, 96, 126, 36, 41, 42, 43],
     [45, 57, 65, 90, 95, 122, 33, 37],
     [39, 59, 62, 63, 126, 42, 43, 45],
     [46, 48, 57, 65, 70, 71, 90, 95],
     [96, 97, 102, 103, 122, 33, 37, 39],
     [59, 62, 63, 126, 42, 43, 45, 46],
     [48, 57, 65, 90, 95, 122, 33, 37],
     [39, 59, 62, 63, 126, 42, 43, 45],
     [46, 48, 57, 65, 70, 71, 90, 95],
     [96, 97, 102, 103, 122, 33, 37, 59],
     [61, 62, 63, 66, 86, 93, 95, 98],
     [118, 126, 36, 43, 45, 58, 65, 91],
     [97, 122, 33, 37, 59, 61, 62, 63],
     [93, 95, 126, 36, 43, 45, 58, 65],
     [91, 97, 122, 33, 37, 59, 61, 62],
     [63, 73, 93, 95, 105, 126, 36, 43],
     [45, 58, 65, 91, 97, 122, 33, 37],
     [59, 61, 62, 63, 68, 93, 95, 100],
     [126, 36, 43, 45, 58, 65, 91, 97],
     [122, 33, 37, 59, 61, 62, 63, 93],
     [95, 126, 36, 43, 45, 58, 65, 91],
     [97, 122, 33, 37, 39, 47, 58, 59],
     [61, 62, 63, 91, 93, 96, 126, 36],
     [41, 42, 43, 45, 57, 65, 90, 95],
     [122, 33, 37, 39, 47, 58, 59, 62],
     [63, 91, 93, 96, 126, 36, 41, 42],
     [43, 45, 57, 65, 90, 95, 122, 33],
     [37, 39, 59, 62, 63, 126, 42, 43],
     [45, 46, 48, 57, 65, 70, 71, 90],
     [95, 96, 97, 102, 103, 122, 33, 37],
     [39, 59, 62, 63, 126, 42, 43, 45],
     [46, 48, 57, 65, 90, 95, 122, 33],
     [37, 39, 59, 62, 63, 126, 42, 43],
     [45, 46, 48, 57, 65, 70, 71, 90],
     [95, 96, 97, 102, 103, 122, 33, 37],
     [59, 61, 62, 63, 82, 93, 95, 114],
     [126, 36, 43, 45, 58, 65, 91, 97],
     [122, 33, 37, 59, 61, 62, 63, 65],
     [93, 95, 97, 126, 36, 43, 45, 58],
     [66, 91, 98, 122, 33, 37, 59, 61],
     [62, 63, 78, 93, 95, 110, 126, 36],
     [43, 45, 58, 65, 91, 97, 122, 33],
     [37, 59, 61, 62, 63, 83, 93, 95],
     [115, 126, 36, 43, 45, 58, 65, 91],
     [97, 122, 33, 37, 59, 61, 62, 63],
     [80, 93, 95, 112, 126, 36, 43, 45],
     [58, 65, 91, 97, 122, 33, 37, 59],
     [61, 62, 63, 79, 93, 95, 111, 126],
     [36, 43, 45, 58, 65, 91, 97, 122],
     [33, 37, 59, 61, 62, 63, 82, 93],
     [95, 114, 126, 36, 43, 45, 58, 65],
     [91, 97, 122, 33, 37, 59, 61, 62],
     [63, 84, 93, 95, 116, 126, 36, 43],
     [45, 58, 65, 91, 97, 122, 33, 37],
     [59, 61, 62, 63, 93, 95, 126, 36],
     [43, 45, 58, 65, 91, 97, 122, 33],
     [37, 39, 47, 58, 59, 61, 62, 63],
     [83, 84, 85, 87, 91, 93, 96, 115],
     [116, 117, 119, 126, 36, 41, 42, 43],
     [45, 57, 65, 90, 95, 122, 33, 37],
     [39, 47, 58, 59, 62, 63, 91, 93],
     [96, 126, 36, 41, 42, 43, 45, 57],
     [65, 90, 95, 122, 33, 37, 39, 59],
     [62, 63, 126, 42, 43, 45, 46, 48],
     [57, 65, 70, 71, 90, 95, 96, 97],
     [102, 103, 122, 33, 37, 39, 59, 62],
     [63, 126, 42, 43, 45, 46, 48, 57],
     [65, 90, 95, 122, 33, 37, 39, 59],
     [62, 63, 126, 42, 43, 45, 46, 48],
     [57, 65, 70, 71, 90, 95, 96, 97],
     [102, 103, 122, 33, 37, 39, 47, 58],
     [59, 62, 63, 67, 91, 93, 96, 99],
     [126, 36, 41, 42, 43, 45, 57, 65],
     [90, 95, 122, 33, 37, 39, 47, 58],
     [59, 62, 63, 84, 91, 93, 96, 116],
     [126, 36, 41, 42, 43, 45, 57, 65],
     [90, 95, 122, 33, 37, 39, 47, 58],
     [59, 62, 63, 80, 91, 93, 96, 112],
     [126, 36, 41, 42, 43, 45, 57, 65],
     [90, 95, 122, 33, 37, 39, 47, 58],
     [59, 62, 63, 91, 93, 96, 126, 36],
     [41, 42, 43, 45, 57, 65, 90, 95],
     [122, 33, 37, 39, 47, 58, 59, 62],
     [63, 67, 76, 91, 93, 96, 99, 108],
     [126, 36, 41, 42, 43, 45, 57, 65],
     [90, 95, 122, 33, 37, 39, 47, 58],
     [59, 62, 63, 80, 91, 93, 96, 112],
     [126, 36, 41, 42, 43, 45, 57, 65],
     [90, 95, 122, 33, 37, 39, 47, 58],
     [59, 62, 63, 91, 93, 96, 126, 36],
     [41, 42, 43, 45, 57, 65, 90, 95],
     [122, 33, 37, 39, 47, 58, 59, 62],
     [63, 83, 91, 93, 96, 115, 126, 36],
     [41, 42, 43, 45, 57, 65, 90, 95],
     [122, 33, 37, 39, 47, 58, 59, 62],
     [63, 91, 93, 96, 126, 36, 41, 42],
     [43, 45, 57, 65, 90, 95, 122, 33],
     [37, 39, 47, 58, 59, 62, 63, 68],
     [91, 93, 96, 100, 126, 36, 41, 42],
     [43, 45, 57, 65, 90, 95, 122, 33],
     [37, 39, 47, 58, 59, 62, 63, 80],
     [91, 93, 96, 112, 126, 36, 41, 42],
     [43, 45, 57, 65, 90, 95, 122, 33],
     [37, 39, 47, 58, 59, 62, 63, 91],
     [93, 96, 126, 36, 41, 42, 43, 45],
     [57, 65, 90, 95, 122, 33, 37, 39],
     [47, 58, 59, 62, 63, 83, 91, 93],
     [96, 115, 126, 36, 41, 42, 43, 45]]"

definition smp_trans_keys_26 :: "int list list" where
  "smp_trans_keys_26 =
    [[57, 65, 90, 95, 122, 33, 37, 39],
     [47, 58, 59, 62, 63, 83, 91, 93],
     [96, 115, 126, 36, 41, 42, 43, 45],
     [57, 65, 90, 95, 122, 33, 37, 39],
     [47, 58, 59, 62, 63, 91, 93, 96],
     [126, 36, 41, 42, 43, 45, 57, 65],
     [90, 95, 122, 59, 62, 63, 48, 57],
     [59, 62, 63, 48, 57, 59, 62, 63],
     [48, 57, 59, 62, 63, 48, 57, 53],
     [59, 62, 63, 48, 52, 54, 57, 53],
     [59, 62, 63, 48, 52, 54, 57, 51],
     [59, 62, 63, 48, 50, 52, 57, 59],
     [62, 63, 48, 53, 48, 49, 50, 51],
     [57, 65, 90, 97, 122, 45, 46, 95],
     [48, 57, 65, 90, 97, 122, 48, 49],
     [50, 51, 57, 65, 90, 97, 122, 45],
     [46, 95, 48, 57, 65, 90, 97, 122],
     [48, 49, 50, 51, 57, 65, 90, 97],
     [122, 45, 46, 58, 59, 62, 63, 95],
     [48, 57, 65, 90, 97, 122, 45, 46],
     [58, 59, 62, 63, 95, 48, 57, 65],
     [90, 97, 122, 45, 46, 58, 59, 62],
     [63, 95, 48, 57, 65, 90, 97, 122],
     [45, 46, 53, 58, 59, 62, 63, 95],
     [48, 52, 54, 57, 65, 90, 97, 122],
     [45, 46, 58, 59, 62, 63, 95, 48],
     [53, 54, 57, 65, 90, 97, 122, 45],
     [46, 95, 48, 57, 65, 90, 97, 122],
     [45, 46, 95, 48, 57, 65, 90, 97],
     [122, 45, 46, 53, 95, 48, 52, 54],
     [57, 65, 90, 97, 122, 45, 46, 95],
     [48, 53, 54, 57, 65, 90, 97, 122],
     [45, 46, 95, 48, 57, 65, 90, 97],
     [122, 45, 46, 95, 48, 57, 65, 90],
     [97, 122, 45, 46, 53, 95, 48, 52],
     [54, 57, 65, 90, 97, 122, 45, 46],
     [95, 48, 53, 54, 57, 65, 90, 97],
     [122, 45, 46, 95, 48, 57, 65, 90],
     [97, 122, 45, 46, 95, 48, 57, 65],
     [90, 97, 122, 45, 46, 53, 95, 48],
     [52, 54, 57, 65, 90, 97, 122, 45],
     [46, 95, 48, 53, 54, 57, 65, 90],
     [97, 122, 58, 48, 57, 65, 70, 97],
     [102, 58, 48, 57, 65, 70, 97, 102],
     [58, 48, 57, 65, 70, 97, 102, 58],
     [48, 57, 65, 70, 97, 102, 58, 58],
     [48, 57, 65, 70, 97, 102, 58, 48],
     [57, 65, 70, 97, 102, 58, 48, 57],
     [65, 70, 97, 102, 58, 48, 57, 65],
     [70, 97, 102, 58, 58, 48, 57, 65],
     [70, 97, 102, 58, 48, 57, 65, 70],
     [97, 102, 58, 48, 57, 65, 70, 97],
     [102, 58, 48, 57, 65, 70, 97, 102],
     [58, 58, 48, 57, 65, 70, 97, 102],
     [58, 48, 57, 65, 70, 97, 102, 58],
     [48, 57, 65, 70, 97, 102, 58, 48],
     [57, 65, 70, 97, 102, 58, 58, 48],
     [57, 65, 70, 97, 102, 58, 48, 57],
     [65, 70, 97, 102, 58, 48, 57, 65],
     [70, 97, 102, 58, 48, 57, 65, 70],
     [97, 102, 58, 58, 48, 57, 65, 70],
     [97, 102, 58, 48, 57, 65, 70, 97],
     [102, 58, 48, 57, 65, 70, 97, 102],
     [58, 48, 57, 65, 70, 97, 102, 58],
     [48, 49, 50, 58, 51, 57, 65, 70],
     [97, 102, 46, 58, 48, 57, 65, 70],
     [97, 102, 48, 49, 50, 51, 57, 46],
     [48, 49, 50, 51, 57, 46, 48, 49],
     [50, 51, 57, 93, 58, 59, 62, 63],
     [93, 48, 57, 93, 48, 57, 53, 93],
     [48, 52, 54, 57, 93, 48, 53, 46],
     [48, 57, 46, 48, 57, 46, 53, 48],
     [52, 54, 57, 46, 48, 53, 46, 48],
     [57, 46, 48, 57, 46, 53, 48, 52],
     [54, 57, 46, 48, 53, 58, 48, 57],
     [65, 70, 97, 102, 58, 48, 57, 65],
     [70, 97, 102, 58, 58, 48, 57, 65],
     [70, 97, 102, 93, 48, 57, 65, 70],
     [97, 102, 93, 48, 57, 65, 70, 97],
     [102, 93, 48, 57, 65, 70, 97, 102],
     [46, 58, 48, 57, 65, 70, 97, 102],
     [46, 58, 48, 57, 65, 70, 97, 102],
     [46, 58, 48, 57, 65, 70, 97, 102],
     [46, 53, 58, 48, 52, 54, 57, 65],
     [70, 97, 102, 46, 58, 48, 53, 54],
     [57, 65, 70, 97, 102, 46, 58, 48],
     [57, 65, 70, 97, 102, 46, 58, 48],
     [57, 65, 70, 97, 102, 93, 48, 57],
     [65, 70, 97, 102, 58, 48, 57, 65],
     [70, 97, 102, 48, 49, 50, 93, 51],
     [57, 65, 70, 97, 102, 46, 58, 93],
     [48, 57, 65, 70, 97, 102, 58, 93],
     [48, 57, 65, 70, 97, 102, 58, 93],
     [48, 57, 65, 70, 97, 102, 58, 93],
     [48, 57, 65, 70, 97, 102, 46, 58],
     [93, 48, 57, 65, 70, 97, 102, 46],
     [58, 93, 48, 57, 65, 70, 97, 102],
     [46, 58, 93, 48, 57, 65, 70, 97],
     [102, 46, 53, 58, 93, 48, 52, 54],
     [57, 65, 70, 97, 102, 46, 58, 93],
     [48, 53, 54, 57, 65, 70, 97, 102],
     [46, 58, 93, 48, 57, 65, 70, 97],
     [102, 46, 58, 93, 48, 57, 65, 70],
     [97, 102, 58, 93, 48, 57, 65, 70],
     [97, 102, 48, 49, 50, 93, 51, 57],
     [65, 70, 97, 102, 46, 58, 93, 48],
     [57, 65, 70, 97, 102, 58, 93, 48],
     [57, 65, 70, 97, 102, 58, 93, 48],
     [57, 65, 70, 97, 102, 58, 93, 48],
     [49, 50, 51, 57, 65, 70, 97, 102],
     [46, 58, 93, 48, 57, 65, 70, 97],
     [102, 46, 58, 93, 48, 57, 65, 70],
     [97, 102, 46, 58, 93, 48, 57, 65],
     [70, 97, 102, 46, 53, 58, 93, 48],
     [52, 54, 57, 65, 70, 97, 102, 46],
     [58, 93, 48, 53, 54, 57, 65, 70],
     [97, 102, 46, 58, 93, 48, 57, 65],
     [70, 97, 102, 46, 58, 93, 48, 57],
     [65, 70, 97, 102, 58, 93, 48, 57],
     [65, 70, 97, 102, 48, 49, 50, 93],
     [51, 57, 65, 70, 97, 102, 46, 58],
     [93, 48, 57, 65, 70, 97, 102, 58],
     [93, 48, 57, 65, 70, 97, 102, 58],
     [93, 48, 57, 65, 70, 97, 102, 58],
     [93, 48, 49, 50, 51, 57, 65, 70],
     [97, 102, 46, 58, 93, 48, 57, 65],
     [70, 97, 102, 46, 58, 93, 48, 57],
     [65, 70, 97, 102, 46, 58, 93, 48],
     [57, 65, 70, 97, 102, 46, 53, 58],
     [93, 48, 52, 54, 57, 65, 70, 97],
     [102, 46, 58, 93, 48, 53, 54, 57],
     [65, 70, 97, 102, 46, 58, 93, 48],
     [57, 65, 70, 97, 102, 46, 58, 93],
     [48, 57, 65, 70, 97, 102, 58, 93],
     [48, 57, 65, 70, 97, 102, 48, 49],
     [50, 93, 51, 57, 65, 70, 97, 102],
     [46, 58, 93, 48, 57, 65, 70, 97],
     [102, 58, 93, 48, 57, 65, 70, 97],
     [102, 58, 93, 48, 57, 65, 70, 97],
     [102, 58, 93, 48, 49, 50, 51, 57],
     [65, 70, 97, 102, 46, 58, 93, 48],
     [57, 65, 70, 97, 102, 46, 58, 93],
     [48, 57, 65, 70, 97, 102, 46, 58],
     [93, 48, 57, 65, 70, 97, 102, 46],
     [53, 58, 93, 48, 52, 54, 57, 65],
     [70, 97, 102, 46, 58, 93, 48, 53],
     [54, 57, 65, 70, 97, 102, 46, 58],
     [93, 48, 57, 65, 70, 97, 102, 46],
     [58, 93, 48, 57, 65, 70, 97, 102],
     [58, 93, 48, 57, 65, 70, 97, 102]]"

definition smp_trans_keys_27 :: "int list list" where
  "smp_trans_keys_27 =
    [[48, 49, 50, 93, 51, 57, 65, 70],
     [97, 102, 46, 58, 93, 48, 57, 65],
     [70, 97, 102, 58, 93, 48, 57, 65],
     [70, 97, 102, 58, 93, 48, 57, 65],
     [70, 97, 102, 58, 93, 48, 49, 50],
     [51, 57, 65, 70, 97, 102, 46, 58],
     [93, 48, 57, 65, 70, 97, 102, 46],
     [58, 93, 48, 57, 65, 70, 97, 102],
     [46, 58, 93, 48, 57, 65, 70, 97],
     [102, 46, 53, 58, 93, 48, 52, 54],
     [57, 65, 70, 97, 102, 46, 58, 93],
     [48, 53, 54, 57, 65, 70, 97, 102],
     [46, 58, 93, 48, 57, 65, 70, 97],
     [102, 46, 58, 93, 48, 57, 65, 70],
     [97, 102, 58, 93, 48, 57, 65, 70],
     [97, 102, 58, 48, 49, 50, 93, 51],
     [57, 65, 70, 97, 102, 46, 58, 93],
     [48, 57, 65, 70, 97, 102, 58, 93],
     [48, 57, 65, 70, 97, 102, 58, 93],
     [48, 57, 65, 70, 97, 102, 58, 93],
     [48, 49, 50, 51, 57, 65, 70, 97],
     [102, 46, 58, 93, 48, 57, 65, 70],
     [97, 102, 46, 58, 93, 48, 57, 65],
     [70, 97, 102, 46, 58, 93, 48, 57],
     [65, 70, 97, 102, 46, 53, 58, 93],
     [48, 52, 54, 57, 65, 70, 97, 102],
     [46, 58, 93, 48, 53, 54, 57, 65],
     [70, 97, 102, 46, 58, 93, 48, 57],
     [65, 70, 97, 102, 46, 58, 93, 48],
     [57, 65, 70, 97, 102, 58, 93, 48],
     [57, 65, 70, 97, 102, 33, 37, 45],
     [46, 58, 59, 61, 63, 64, 95, 126],
     [35, 47, 48, 57, 65, 90, 97, 122],
     [33, 37, 45, 58, 59, 61, 63, 64],
     [95, 126, 35, 47, 48, 57, 65, 90],
     [97, 122, 33, 37, 45, 46, 58, 59],
     [61, 63, 64, 95, 126, 35, 47, 48],
     [57, 65, 90, 97, 122, 33, 37, 58],
     [59, 61, 63, 64, 95, 126, 35, 47],
     [48, 57, 65, 90, 97, 122, 33, 37],
     [45, 46, 58, 59, 61, 62, 63, 64],
     [95, 126, 35, 47, 48, 57, 65, 90],
     [97, 122, 33, 37, 45, 58, 59, 61],
     [63, 64, 95, 126, 35, 47, 48, 57],
     [65, 90, 97, 122, 33, 37, 58, 59],
     [61, 62, 63, 64, 95, 126, 35, 47],
     [48, 57, 65, 90, 97, 122, 33, 37],
     [48, 54, 61, 64, 95, 126, 36, 46],
     [49, 53, 55, 57, 65, 90, 97, 122],
     [33, 37, 48, 61, 64, 95, 126, 36],
     [46, 49, 57, 65, 90, 97, 122, 33],
     [37, 48, 61, 64, 95, 126, 36, 46],
     [49, 57, 65, 90, 97, 122, 33, 37],
     [48, 61, 64, 95, 126, 36, 46, 49],
     [57, 65, 90, 97, 122, 33, 37, 59],
     [62, 63, 64, 95, 126, 36, 46, 48],
     [57, 61, 90, 97, 122, 33, 37, 59],
     [62, 63, 64, 95, 126, 36, 46, 48],
     [57, 61, 90, 97, 122, 33, 37, 59],
     [62, 63, 64, 95, 126, 36, 46, 48],
     [57, 61, 90, 97, 122, 33, 37, 59],
     [62, 63, 64, 95, 126, 36, 46, 48],
     [57, 61, 90, 97, 122, 33, 37, 59],
     [62, 63, 64, 95, 126, 36, 46, 48],
     [57, 61, 90, 97, 122, 33, 37, 53],
     [59, 62, 63, 64, 95, 126, 36, 46],
     [48, 52, 54, 57, 61, 90, 97, 122],
     [33, 37, 53, 59, 62, 63, 64, 95],
     [126, 36, 46, 48, 52, 54, 57, 61],
     [90, 97, 122, 33, 37, 51, 59, 62],
     [63, 64, 95, 126, 36, 46, 48, 50],
     [52, 57, 61, 90, 97, 122, 33, 37],
     [59, 62, 63, 64, 95, 126, 36, 46],
     [48, 53, 54, 57, 61, 90, 97, 122],
     [33, 35, 37, 44, 58, 59, 61, 63],
     [64, 76, 79, 84, 91, 93, 95, 108],
     [111, 116, 126, 36, 57, 65, 90, 97],
     [122, 33, 35, 37, 44, 58, 59, 61],
     [62, 63, 64, 91, 93, 95, 126, 36],
     [57, 65, 90, 97, 122, 48, 57, 65],
     [70, 97, 102, 48, 57, 65, 70, 97],
     [102, 33, 37, 44, 47, 58, 59, 61],
     [62, 63, 64, 91, 93, 95, 126, 36],
     [57, 65, 90, 97, 122, 48, 57, 65],
     [70, 97, 102, 48, 57, 65, 70, 97],
     [102, 33, 37, 44, 47, 58, 59, 61],
     [62, 63, 64, 91, 93, 95, 126, 36],
     [57, 65, 90, 97, 122, 33, 37, 44],
     [47, 58, 59, 61, 62, 63, 64, 91],
     [93, 95, 126, 36, 57, 65, 90, 97],
     [122, 48, 57, 65, 70, 97, 102, 48],
     [57, 65, 70, 97, 102, 33, 37, 44],
     [47, 58, 61, 64, 91, 93, 95, 126],
     [36, 57, 65, 90, 97, 122, 33, 35],
     [37, 44, 58, 59, 61, 62, 63, 64],
     [91, 93, 95, 126, 36, 57, 65, 90],
     [97, 122, 33, 35, 37, 44, 58, 59],
     [61, 62, 63, 64, 91, 93, 95, 126],
     [36, 57, 65, 90, 97, 122, 48, 57],
     [65, 70, 97, 102, 48, 57, 65, 70],
     [97, 102, 33, 36, 37, 44, 58, 59],
     [61, 64, 91, 93, 95, 126, 35, 38],
     [39, 57, 63, 90, 97, 122, 33, 36],
     [37, 44, 58, 59, 61, 64, 91, 93],
     [95, 126, 35, 38, 39, 57, 63, 90],
     [97, 122, 48, 57, 65, 70, 97, 102],
     [48, 57, 65, 70, 97, 102, 33, 37],
     [38, 44, 47, 58, 61, 63, 64, 91],
     [93, 95, 126, 36, 57, 65, 90, 97],
     [122, 48, 57, 65, 70, 97, 102, 48],
     [57, 65, 70, 97, 102, 33, 37, 38],
     [44, 47, 58, 61, 62, 63, 64, 91],
     [93, 95, 126, 36, 57, 65, 90, 97],
     [122, 48, 57, 65, 70, 97, 102, 48],
     [57, 65, 70, 97, 102, 33, 37, 38],
     [44, 47, 58, 61, 63, 64, 91, 93],
     [95, 126, 36, 57, 65, 90, 97, 122],
     [33, 35, 37, 38, 44, 58, 59, 61],
     [62, 64, 91, 93, 95, 126, 36, 57],
     [63, 90, 97, 122, 48, 57, 65, 70],
     [97, 102, 48, 57, 65, 70, 97, 102],
     [33, 35, 37, 44, 58, 59, 61, 63],
     [64, 91, 93, 95, 126, 36, 57, 65],
     [90, 97, 122, 33, 35, 37, 44, 58],
     [59, 61, 62, 63, 64, 82, 91, 93],
     [95, 114, 126, 36, 57, 65, 90, 97],
     [122, 33, 35, 37, 44, 58, 59, 61],
     [62, 63, 64, 91, 93, 95, 126, 36],
     [57, 65, 90, 97, 122, 33, 35, 37],
     [39, 44, 47, 58, 59, 61, 62, 63],
     [64, 91, 93, 96, 126, 36, 41, 42],
     [57, 65, 90, 95, 122, 33, 35, 37],
     [39, 44, 47, 58, 59, 61, 62, 63],
     [64, 91, 93, 96, 126, 36, 41, 42],
     [57, 65, 90, 95, 122, 33, 37, 39],
     [59, 62, 63, 126, 42, 43, 45, 46],
     [48, 57, 65, 70, 71, 90, 95, 96],
     [97, 102, 103, 122, 33, 37, 39, 59],
     [62, 63, 126, 42, 43, 45, 46, 48],
     [57, 65, 70, 71, 90, 95, 96, 97],
     [102, 103, 122, 33, 35, 37, 44, 58],
     [59, 61, 62, 63, 64, 66, 86, 91],
     [93, 95, 98, 118, 126, 36, 57, 65],
     [90, 97, 122, 33, 35, 37, 44, 58],
     [59, 61, 62, 63, 64, 91, 93, 95],
     [126, 36, 57, 65, 90, 97, 122, 33],
     [35, 37, 44, 58, 59, 61, 62, 63],
     [64, 73, 91, 93, 95, 105, 126, 36],
     [57, 65, 90, 97, 122, 33, 35, 37],
     [44, 58, 59, 61, 62, 63, 64, 68]]"

definition smp_trans_keys_28 :: "int list list" where
  "smp_trans_keys_28 =
    [[91, 93, 95, 100, 126, 36, 57, 65],
     [90, 97, 122, 33, 35, 37, 44, 58],
     [59, 61, 62, 63, 64, 91, 93, 95],
     [126, 36, 57, 65, 90, 97, 122, 33],
     [35, 37, 39, 44, 47, 58, 59, 61],
     [62, 63, 64, 91, 93, 96, 126, 36],
     [41, 42, 57, 65, 90, 95, 122, 33],
     [35, 37, 39, 44, 47, 58, 59, 61],
     [62, 63, 64, 91, 93, 96, 126, 36],
     [41, 42, 57, 65, 90, 95, 122, 33],
     [37, 39, 59, 62, 63, 126, 42, 43],
     [45, 46, 48, 57, 65, 70, 71, 90],
     [95, 96, 97, 102, 103, 122, 33, 37],
     [39, 59, 62, 63, 126, 42, 43, 45],
     [46, 48, 57, 65, 70, 71, 90, 95],
     [96, 97, 102, 103, 122, 33, 35, 37],
     [44, 58, 59, 61, 62, 63, 64, 82],
     [91, 93, 95, 114, 126, 36, 57, 65],
     [90, 97, 122, 33, 35, 37, 44, 58],
     [59, 61, 62, 63, 64, 65, 91, 93],
     [95, 97, 126, 36, 57, 66, 90, 98],
     [122, 33, 35, 37, 44, 58, 59, 61],
     [62, 63, 64, 78, 91, 93, 95, 110],
     [126, 36, 57, 65, 90, 97, 122, 33],
     [35, 37, 44, 58, 59, 61, 62, 63],
     [64, 83, 91, 93, 95, 115, 126, 36],
     [57, 65, 90, 97, 122, 33, 35, 37],
     [44, 58, 59, 61, 62, 63, 64, 80],
     [91, 93, 95, 112, 126, 36, 57, 65],
     [90, 97, 122, 33, 35, 37, 44, 58],
     [59, 61, 62, 63, 64, 79, 91, 93],
     [95, 111, 126, 36, 57, 65, 90, 97],
     [122, 33, 35, 37, 44, 58, 59, 61],
     [62, 63, 64, 82, 91, 93, 95, 114],
     [126, 36, 57, 65, 90, 97, 122, 33],
     [35, 37, 44, 58, 59, 61, 62, 63],
     [64, 84, 91, 93, 95, 116, 126, 36],
     [57, 65, 90, 97, 122, 33, 35, 37],
     [44, 58, 59, 61, 62, 63, 64, 91],
     [93, 95, 126, 36, 57, 65, 90, 97],
     [122, 33, 35, 37, 39, 44, 47, 58],
     [59, 61, 62, 63, 64, 83, 84, 85],
     [87, 91, 93, 96, 115, 116, 117, 119],
     [126, 36, 41, 42, 57, 65, 90, 95],
     [122, 33, 35, 37, 39, 44, 47, 58],
     [59, 61, 62, 63, 64, 91, 93, 96],
     [126, 36, 41, 42, 57, 65, 90, 95],
     [122, 33, 37, 39, 59, 62, 63, 126],
     [42, 43, 45, 46, 48, 57, 65, 70],
     [71, 90, 95, 96, 97, 102, 103, 122],
     [33, 37, 39, 59, 62, 63, 126, 42],
     [43, 45, 46, 48, 57, 65, 70, 71],
     [90, 95, 96, 97, 102, 103, 122, 33],
     [35, 37, 39, 44, 47, 58, 59, 61],
     [62, 63, 64, 67, 91, 93, 96, 99],
     [126, 36, 41, 42, 57, 65, 90, 95],
     [122, 33, 35, 37, 39, 44, 47, 58],
     [59, 61, 62, 63, 64, 84, 91, 93],
     [96, 116, 126, 36, 41, 42, 57, 65],
     [90, 95, 122, 33, 35, 37, 39, 44],
     [47, 58, 59, 61, 62, 63, 64, 80],
     [91, 93, 96, 112, 126, 36, 41, 42],
     [57, 65, 90, 95, 122, 33, 35, 37],
     [39, 44, 47, 58, 59, 61, 62, 63],
     [64, 91, 93, 96, 126, 36, 41, 42],
     [57, 65, 90, 95, 122, 33, 35, 37],
     [39, 44, 47, 58, 59, 61, 62, 63],
     [64, 67, 76, 91, 93, 96, 99, 108],
     [126, 36, 41, 42, 57, 65, 90, 95],
     [122, 33, 35, 37, 39, 44, 47, 58],
     [59, 61, 62, 63, 64, 80, 91, 93],
     [96, 112, 126, 36, 41, 42, 57, 65],
     [90, 95, 122, 33, 35, 37, 39, 44],
     [47, 58, 59, 61, 62, 63, 64, 91],
     [93, 96, 126, 36, 41, 42, 57, 65],
     [90, 95, 122, 33, 35, 37, 39, 44],
     [47, 58, 59, 61, 62, 63, 64, 83],
     [91, 93, 96, 115, 126, 36, 41, 42],
     [57, 65, 90, 95, 122, 33, 35, 37],
     [39, 44, 47, 58, 59, 61, 62, 63],
     [64, 91, 93, 96, 126, 36, 41, 42],
     [57, 65, 90, 95, 122, 33, 35, 37],
     [39, 44, 47, 58, 59, 61, 62, 63],
     [64, 68, 91, 93, 96, 100, 126, 36],
     [41, 42, 57, 65, 90, 95, 122, 33],
     [35, 37, 39, 44, 47, 58, 59, 61],
     [62, 63, 64, 80, 91, 93, 96, 112],
     [126, 36, 41, 42, 57, 65, 90, 95],
     [122, 33, 35, 37, 39, 44, 47, 58],
     [59, 61, 62, 63, 64, 91, 93, 96],
     [126, 36, 41, 42, 57, 65, 90, 95],
     [122, 33, 35, 37, 39, 44, 47, 58],
     [59, 61, 62, 63, 64, 83, 91, 93],
     [96, 115, 126, 36, 41, 42, 57, 65],
     [90, 95, 122, 33, 35, 37, 39, 44],
     [47, 58, 59, 61, 62, 63, 64, 83],
     [91, 93, 96, 115, 126, 36, 41, 42],
     [57, 65, 90, 95, 122, 33, 35, 37],
     [39, 44, 47, 58, 59, 61, 62, 63],
     [64, 91, 93, 96, 126, 36, 41, 42],
     [57, 65, 90, 95, 122, 33, 37, 48],
     [49, 50, 58, 59, 61, 63, 64, 95],
     [126, 35, 47, 51, 57, 65, 90, 97],
     [122, 33, 37, 45, 46, 58, 59, 61],
     [63, 64, 95, 126, 35, 47, 48, 57],
     [65, 90, 97, 122, 33, 37, 48, 49],
     [50, 58, 59, 61, 63, 64, 95, 126],
     [35, 47, 51, 57, 65, 90, 97, 122],
     [33, 37, 45, 46, 58, 59, 61, 63],
     [64, 95, 126, 35, 47, 48, 57, 65],
     [90, 97, 122, 33, 37, 48, 49, 50],
     [58, 59, 61, 63, 64, 95, 126, 35],
     [47, 51, 57, 65, 90, 97, 122, 33],
     [37, 45, 46, 58, 59, 61, 62, 63],
     [64, 95, 126, 35, 47, 48, 57, 65],
     [90, 97, 122, 33, 37, 45, 46, 58],
     [59, 61, 62, 63, 64, 95, 126, 35],
     [47, 48, 57, 65, 90, 97, 122, 33],
     [37, 45, 46, 58, 59, 61, 62, 63],
     [64, 95, 126, 35, 47, 48, 57, 65],
     [90, 97, 122, 33, 37, 45, 46, 53],
     [58, 59, 61, 62, 63, 64, 95, 126],
     [35, 47, 48, 52, 54, 57, 65, 90],
     [97, 122, 33, 37, 45, 46, 58, 59],
     [61, 62, 63, 64, 95, 126, 35, 47],
     [48, 53, 54, 57, 65, 90, 97, 122],
     [33, 37, 45, 46, 58, 59, 61, 63],
     [64, 95, 126, 35, 47, 48, 57, 65],
     [90, 97, 122, 33, 37, 45, 46, 58],
     [59, 61, 63, 64, 95, 126, 35, 47],
     [48, 57, 65, 90, 97, 122, 33, 37],
     [45, 46, 53, 58, 59, 61, 63, 64],
     [95, 126, 35, 47, 48, 52, 54, 57],
     [65, 90, 97, 122, 33, 37, 45, 46],
     [58, 59, 61, 63, 64, 95, 126, 35],
     [47, 48, 53, 54, 57, 65, 90, 97],
     [122, 33, 37, 45, 46, 58, 59, 61],
     [63, 64, 95, 126, 35, 47, 48, 57],
     [65, 90, 97, 122, 33, 37, 45, 46],
     [58, 59, 61, 63, 64, 95, 126, 35],
     [47, 48, 57, 65, 90, 97, 122, 33],
     [37, 45, 46, 53, 58, 59, 61, 63],
     [64, 95, 126, 35, 47, 48, 52, 54],
     [57, 65, 90, 97, 122, 33, 37, 45],
     [46, 58, 59, 61, 63, 64, 95, 126],
     [35, 47, 48, 53, 54, 57, 65, 90],
     [97, 122, 33, 37, 45, 46, 58, 59],
     [61, 63, 64, 95, 126, 35, 47, 48],
     [57, 65, 90, 97, 122, 33, 37, 45],
     [46, 58, 59, 61, 63, 64, 95, 126]]"

definition smp_trans_keys_29 :: "int list list" where
  "smp_trans_keys_29 =
    [[35, 47, 48, 57, 65, 90, 97, 122],
     [33, 37, 45, 46, 53, 58, 59, 61],
     [63, 64, 95, 126, 35, 47, 48, 52],
     [54, 57, 65, 90, 97, 122, 33, 37],
     [45, 46, 58, 59, 61, 63, 64, 95],
     [126, 35, 47, 48, 53, 54, 57, 65],
     [90, 97, 122, 58, 9, 13, 32, 33],
     [37, 39, 59, 61, 65, 97, 126, 42],
     [43, 45, 46, 48, 57, 66, 90, 95],
     [122, 9, 13, 32, 33, 37, 39, 59],
     [61, 71, 103, 126, 42, 43, 45, 46],
     [48, 57, 65, 90, 95, 122, 9, 13],
     [32, 33, 37, 39, 59, 61, 126, 42],
     [43, 45, 46, 48, 57, 65, 90, 95],
     [122, 9, 13, 32, 59, 61, 10, 9],
     [32, 9, 32, 59, 61, 9, 13, 32],
     [33, 34, 37, 39, 91, 126, 42, 43],
     [45, 46, 48, 57, 65, 90, 95, 122],
     [10, 9, 32, 9, 32, 33, 34, 37],
     [39, 91, 126, 42, 43, 45, 46, 48],
     [57, 65, 90, 95, 122, 9, 13, 32],
     [33, 37, 39, 59, 126, 42, 43, 45],
     [46, 48, 57, 65, 90, 95, 122, 10],
     [9, 13, 32, 33, 37, 39, 67, 70],
     [73, 75, 76, 77, 80, 82, 83, 84],
     [86, 99, 102, 105, 107, 108, 109, 112],
     [114, 115, 116, 118, 126, 42, 43, 45],
     [46, 48, 57, 65, 90, 95, 122, 33],
     [37, 62, 95, 126, 36, 59, 61, 90],
     [97, 122, 48, 57, 65, 70, 97, 102],
     [48, 57, 65, 70, 97, 102, 62, 63],
     [48, 57, 62, 63, 48, 57, 62, 63],
     [48, 57, 62, 63, 48, 57, 53, 62],
     [63, 48, 52, 54, 57, 53, 62, 63],
     [48, 52, 54, 57, 51, 62, 63, 48],
     [50, 52, 57, 62, 63, 48, 53, 48],
     [49, 50, 51, 57, 65, 90, 97, 122],
     [45, 46, 95, 48, 57, 65, 90, 97],
     [122, 48, 49, 50, 51, 57, 65, 90],
     [97, 122, 45, 46, 95, 48, 57, 65],
     [90, 97, 122, 48, 49, 50, 51, 57],
     [65, 90, 97, 122, 45, 46, 58, 62],
     [63, 95, 48, 57, 65, 90, 97, 122],
     [45, 46, 58, 62, 63, 95, 48, 57],
     [65, 90, 97, 122, 45, 46, 58, 62],
     [63, 95, 48, 57, 65, 90, 97, 122],
     [45, 46, 53, 58, 62, 63, 95, 48],
     [52, 54, 57, 65, 90, 97, 122, 45],
     [46, 58, 62, 63, 95, 48, 53, 54],
     [57, 65, 90, 97, 122, 45, 46, 95],
     [48, 57, 65, 90, 97, 122, 45, 46],
     [95, 48, 57, 65, 90, 97, 122, 45],
     [46, 53, 95, 48, 52, 54, 57, 65],
     [90, 97, 122, 45, 46, 95, 48, 53],
     [54, 57, 65, 90, 97, 122, 45, 46],
     [95, 48, 57, 65, 90, 97, 122, 45],
     [46, 95, 48, 57, 65, 90, 97, 122],
     [45, 46, 53, 95, 48, 52, 54, 57],
     [65, 90, 97, 122, 45, 46, 95, 48],
     [53, 54, 57, 65, 90, 97, 122, 45],
     [46, 95, 48, 57, 65, 90, 97, 122],
     [45, 46, 95, 48, 57, 65, 90, 97],
     [122, 45, 46, 53, 95, 48, 52, 54],
     [57, 65, 90, 97, 122, 45, 46, 95],
     [48, 53, 54, 57, 65, 90, 97, 122],
     [58, 48, 57, 65, 70, 97, 102, 58],
     [48, 57, 65, 70, 97, 102, 58, 48],
     [57, 65, 70, 97, 102, 58, 48, 57],
     [65, 70, 97, 102, 58, 58, 48, 57],
     [65, 70, 97, 102, 58, 48, 57, 65],
     [70, 97, 102, 58, 48, 57, 65, 70],
     [97, 102, 58, 48, 57, 65, 70, 97],
     [102, 58, 58, 48, 57, 65, 70, 97],
     [102, 58, 48, 57, 65, 70, 97, 102],
     [58, 48, 57, 65, 70, 97, 102, 58],
     [48, 57, 65, 70, 97, 102, 58, 58],
     [48, 57, 65, 70, 97, 102, 58, 48],
     [57, 65, 70, 97, 102, 58, 48, 57],
     [65, 70, 97, 102, 58, 48, 57, 65],
     [70, 97, 102, 58, 58, 48, 57, 65],
     [70, 97, 102, 58, 48, 57, 65, 70],
     [97, 102, 58, 48, 57, 65, 70, 97],
     [102, 58, 48, 57, 65, 70, 97, 102],
     [58, 58, 48, 57, 65, 70, 97, 102],
     [58, 48, 57, 65, 70, 97, 102, 58],
     [48, 57, 65, 70, 97, 102, 58, 48],
     [57, 65, 70, 97, 102, 58, 48, 49],
     [50, 58, 51, 57, 65, 70, 97, 102],
     [46, 58, 48, 57, 65, 70, 97, 102],
     [48, 49, 50, 51, 57, 46, 48, 49],
     [50, 51, 57, 46, 48, 49, 50, 51],
     [57, 93, 58, 62, 63, 93, 48, 57],
     [93, 48, 57, 53, 93, 48, 52, 54],
     [57, 93, 48, 53, 46, 48, 57, 46],
     [48, 57, 46, 53, 48, 52, 54, 57],
     [46, 48, 53, 46, 48, 57, 46, 48],
     [57, 46, 53, 48, 52, 54, 57, 46],
     [48, 53, 58, 48, 57, 65, 70, 97],
     [102, 58, 48, 57, 65, 70, 97, 102],
     [58, 58, 48, 57, 65, 70, 97, 102],
     [93, 48, 57, 65, 70, 97, 102, 93],
     [48, 57, 65, 70, 97, 102, 93, 48],
     [57, 65, 70, 97, 102, 46, 58, 48],
     [57, 65, 70, 97, 102, 46, 58, 48],
     [57, 65, 70, 97, 102, 46, 58, 48],
     [57, 65, 70, 97, 102, 46, 53, 58],
     [48, 52, 54, 57, 65, 70, 97, 102],
     [46, 58, 48, 53, 54, 57, 65, 70],
     [97, 102, 46, 58, 48, 57, 65, 70],
     [97, 102, 46, 58, 48, 57, 65, 70],
     [97, 102, 93, 48, 57, 65, 70, 97],
     [102, 58, 48, 57, 65, 70, 97, 102],
     [48, 49, 50, 93, 51, 57, 65, 70],
     [97, 102, 46, 58, 93, 48, 57, 65],
     [70, 97, 102, 58, 93, 48, 57, 65],
     [70, 97, 102, 58, 93, 48, 57, 65],
     [70, 97, 102, 58, 93, 48, 57, 65],
     [70, 97, 102, 46, 58, 93, 48, 57],
     [65, 70, 97, 102, 46, 58, 93, 48],
     [57, 65, 70, 97, 102, 46, 58, 93],
     [48, 57, 65, 70, 97, 102, 46, 53],
     [58, 93, 48, 52, 54, 57, 65, 70],
     [97, 102, 46, 58, 93, 48, 53, 54],
     [57, 65, 70, 97, 102, 46, 58, 93],
     [48, 57, 65, 70, 97, 102, 46, 58],
     [93, 48, 57, 65, 70, 97, 102, 58],
     [93, 48, 57, 65, 70, 97, 102, 48],
     [49, 50, 93, 51, 57, 65, 70, 97],
     [102, 46, 58, 93, 48, 57, 65, 70],
     [97, 102, 58, 93, 48, 57, 65, 70],
     [97, 102, 58, 93, 48, 57, 65, 70],
     [97, 102, 58, 93, 48, 49, 50, 51],
     [57, 65, 70, 97, 102, 46, 58, 93],
     [48, 57, 65, 70, 97, 102, 46, 58],
     [93, 48, 57, 65, 70, 97, 102, 46],
     [58, 93, 48, 57, 65, 70, 97, 102],
     [46, 53, 58, 93, 48, 52, 54, 57],
     [65, 70, 97, 102, 46, 58, 93, 48],
     [53, 54, 57, 65, 70, 97, 102, 46],
     [58, 93, 48, 57, 65, 70, 97, 102],
     [46, 58, 93, 48, 57, 65, 70, 97],
     [102, 58, 93, 48, 57, 65, 70, 97],
     [102, 48, 49, 50, 93, 51, 57, 65],
     [70, 97, 102, 46, 58, 93, 48, 57],
     [65, 70, 97, 102, 58, 93, 48, 57],
     [65, 70, 97, 102, 58, 93, 48, 57],
     [65, 70, 97, 102, 58, 93, 48, 49],
     [50, 51, 57, 65, 70, 97, 102, 46],
     [58, 93, 48, 57, 65, 70, 97, 102],
     [46, 58, 93, 48, 57, 65, 70, 97]]"

definition smp_trans_keys_30 :: "int list list" where
  "smp_trans_keys_30 =
    [[102, 46, 58, 93, 48, 57, 65, 70],
     [97, 102, 46, 53, 58, 93, 48, 52],
     [54, 57, 65, 70, 97, 102, 46, 58],
     [93, 48, 53, 54, 57, 65, 70, 97],
     [102, 46, 58, 93, 48, 57, 65, 70],
     [97, 102, 46, 58, 93, 48, 57, 65],
     [70, 97, 102, 58, 93, 48, 57, 65],
     [70, 97, 102, 48, 49, 50, 93, 51],
     [57, 65, 70, 97, 102, 46, 58, 93],
     [48, 57, 65, 70, 97, 102, 58, 93],
     [48, 57, 65, 70, 97, 102, 58, 93],
     [48, 57, 65, 70, 97, 102, 58, 93],
     [48, 49, 50, 51, 57, 65, 70, 97],
     [102, 46, 58, 93, 48, 57, 65, 70],
     [97, 102, 46, 58, 93, 48, 57, 65],
     [70, 97, 102, 46, 58, 93, 48, 57],
     [65, 70, 97, 102, 46, 53, 58, 93],
     [48, 52, 54, 57, 65, 70, 97, 102],
     [46, 58, 93, 48, 53, 54, 57, 65],
     [70, 97, 102, 46, 58, 93, 48, 57],
     [65, 70, 97, 102, 46, 58, 93, 48],
     [57, 65, 70, 97, 102, 58, 93, 48],
     [57, 65, 70, 97, 102, 48, 49, 50],
     [93, 51, 57, 65, 70, 97, 102, 46],
     [58, 93, 48, 57, 65, 70, 97, 102],
     [58, 93, 48, 57, 65, 70, 97, 102],
     [58, 93, 48, 57, 65, 70, 97, 102],
     [58, 93, 48, 49, 50, 51, 57, 65],
     [70, 97, 102, 46, 58, 93, 48, 57],
     [65, 70, 97, 102, 46, 58, 93, 48],
     [57, 65, 70, 97, 102, 46, 58, 93],
     [48, 57, 65, 70, 97, 102, 46, 53],
     [58, 93, 48, 52, 54, 57, 65, 70],
     [97, 102, 46, 58, 93, 48, 53, 54],
     [57, 65, 70, 97, 102, 46, 58, 93],
     [48, 57, 65, 70, 97, 102, 46, 58],
     [93, 48, 57, 65, 70, 97, 102, 58],
     [93, 48, 57, 65, 70, 97, 102, 58],
     [48, 49, 50, 93, 51, 57, 65, 70],
     [97, 102, 46, 58, 93, 48, 57, 65],
     [70, 97, 102, 58, 93, 48, 57, 65],
     [70, 97, 102, 58, 93, 48, 57, 65],
     [70, 97, 102, 58, 93, 48, 49, 50],
     [51, 57, 65, 70, 97, 102, 46, 58],
     [93, 48, 57, 65, 70, 97, 102, 46],
     [58, 93, 48, 57, 65, 70, 97, 102],
     [46, 58, 93, 48, 57, 65, 70, 97],
     [102, 46, 53, 58, 93, 48, 52, 54],
     [57, 65, 70, 97, 102, 46, 58, 93],
     [48, 53, 54, 57, 65, 70, 97, 102],
     [46, 58, 93, 48, 57, 65, 70, 97],
     [102, 46, 58, 93, 48, 57, 65, 70],
     [97, 102, 58, 93, 48, 57, 65, 70],
     [97, 102, 48, 57, 65, 70, 97, 102],
     [48, 57, 65, 70, 97, 102, 33, 37],
     [47, 62, 63, 64, 95, 126, 36, 57],
     [58, 59, 61, 90, 97, 122, 48, 57],
     [65, 70, 97, 102, 48, 57, 65, 70],
     [97, 102, 33, 37, 62, 91, 95, 126],
     [36, 59, 61, 90, 97, 122, 33, 35],
     [37, 47, 58, 62, 64, 95, 126, 36],
     [59, 61, 90, 97, 122, 33, 35, 37],
     [58, 62, 64, 91, 95, 126, 36, 59],
     [61, 90, 97, 122, 33, 35, 37, 58],
     [62, 64, 95, 126, 36, 59, 61, 90],
     [97, 122, 33, 37, 58, 61, 64, 95],
     [126, 35, 59, 63, 90, 97, 122, 48],
     [57, 65, 70, 97, 102, 48, 57, 65],
     [70, 97, 102, 33, 37, 61, 64, 95],
     [126, 36, 46, 48, 57, 65, 90, 97],
     [122, 48, 57, 65, 70, 97, 102, 48],
     [57, 65, 70, 97, 102, 48, 49, 50],
     [91, 51, 57, 65, 90, 97, 122, 45],
     [46, 95, 48, 57, 65, 90, 97, 122],
     [45, 95, 48, 57, 65, 90, 97, 122],
     [45, 46, 95, 48, 57, 65, 90, 97],
     [122, 48, 57, 65, 90, 97, 122, 45],
     [46, 47, 58, 62, 63, 95, 48, 57],
     [65, 90, 97, 122, 45, 95, 48, 57],
     [65, 90, 97, 122, 47, 58, 62, 63],
     [48, 57, 65, 90, 97, 122, 48, 54],
     [49, 53, 55, 57, 48, 49, 57, 48],
     [49, 57, 49, 57, 47, 62, 63, 47],
     [62, 63, 48, 57, 47, 62, 63, 48],
     [57, 47, 62, 63, 48, 57, 47, 62],
     [63, 48, 57, 47, 53, 62, 63, 48],
     [52, 54, 57, 47, 53, 62, 63, 48],
     [52, 54, 57, 47, 51, 62, 63, 48],
     [50, 52, 57, 47, 62, 63, 48, 53],
     [48, 49, 50, 51, 57, 65, 90, 97],
     [122, 45, 46, 95, 48, 57, 65, 90],
     [97, 122, 48, 49, 50, 51, 57, 65],
     [90, 97, 122, 45, 46, 95, 48, 57],
     [65, 90, 97, 122, 48, 49, 50, 51],
     [57, 65, 90, 97, 122, 45, 46, 47],
     [58, 62, 63, 95, 48, 57, 65, 90],
     [97, 122, 45, 46, 47, 58, 62, 63],
     [95, 48, 57, 65, 90, 97, 122, 45],
     [46, 47, 58, 62, 63, 95, 48, 57],
     [65, 90, 97, 122, 45, 46, 47, 53],
     [58, 62, 63, 95, 48, 52, 54, 57],
     [65, 90, 97, 122, 45, 46, 47, 58],
     [62, 63, 95, 48, 53, 54, 57, 65],
     [90, 97, 122, 45, 46, 95, 48, 57],
     [65, 90, 97, 122, 45, 46, 95, 48],
     [57, 65, 90, 97, 122, 45, 46, 53],
     [95, 48, 52, 54, 57, 65, 90, 97],
     [122, 45, 46, 95, 48, 53, 54, 57],
     [65, 90, 97, 122, 45, 46, 95, 48],
     [57, 65, 90, 97, 122, 45, 46, 95],
     [48, 57, 65, 90, 97, 122, 45, 46],
     [53, 95, 48, 52, 54, 57, 65, 90],
     [97, 122, 45, 46, 95, 48, 53, 54],
     [57, 65, 90, 97, 122, 45, 46, 95],
     [48, 57, 65, 90, 97, 122, 45, 46],
     [95, 48, 57, 65, 90, 97, 122, 45],
     [46, 53, 95, 48, 52, 54, 57, 65],
     [90, 97, 122, 45, 46, 95, 48, 53],
     [54, 57, 65, 90, 97, 122, 58, 48],
     [57, 65, 70, 97, 102, 58, 48, 57],
     [65, 70, 97, 102, 58, 48, 57, 65],
     [70, 97, 102, 58, 48, 57, 65, 70],
     [97, 102, 58, 58, 48, 57, 65, 70],
     [97, 102, 58, 48, 57, 65, 70, 97],
     [102, 58, 48, 57, 65, 70, 97, 102],
     [58, 48, 57, 65, 70, 97, 102, 58],
     [58, 48, 57, 65, 70, 97, 102, 58],
     [48, 57, 65, 70, 97, 102, 58, 48],
     [57, 65, 70, 97, 102, 58, 48, 57],
     [65, 70, 97, 102, 58, 58, 48, 57],
     [65, 70, 97, 102, 58, 48, 57, 65],
     [70, 97, 102, 58, 48, 57, 65, 70],
     [97, 102, 58, 48, 57, 65, 70, 97],
     [102, 58, 58, 48, 57, 65, 70, 97],
     [102, 58, 48, 57, 65, 70, 97, 102],
     [58, 48, 57, 65, 70, 97, 102, 58],
     [48, 57, 65, 70, 97, 102, 58, 58],
     [48, 57, 65, 70, 97, 102, 58, 48],
     [57, 65, 70, 97, 102, 58, 48, 57],
     [65, 70, 97, 102, 58, 48, 57, 65],
     [70, 97, 102, 58, 48, 49, 50, 58],
     [51, 57, 65, 70, 97, 102, 46, 58],
     [48, 57, 65, 70, 97, 102, 48, 49],
     [50, 51, 57, 46, 48, 49, 50, 51],
     [57, 46, 48, 49, 50, 51, 57, 93],
     [47, 58, 62, 63, 93, 48, 57, 93],
     [48, 57, 53, 93, 48, 52, 54, 57],
     [93, 48, 53, 46, 48, 57, 46, 48],
     [57, 46, 53, 48, 52, 54, 57, 46],
     [48, 53, 46, 48, 57, 46, 48, 57]]"

definition smp_trans_keys_31 :: "int list list" where
  "smp_trans_keys_31 =
    [[46, 53, 48, 52, 54, 57, 46, 48],
     [53, 58, 48, 57, 65, 70, 97, 102],
     [58, 48, 57, 65, 70, 97, 102, 58],
     [58, 48, 57, 65, 70, 97, 102, 93],
     [48, 57, 65, 70, 97, 102, 93, 48],
     [57, 65, 70, 97, 102, 93, 48, 57],
     [65, 70, 97, 102, 46, 58, 48, 57],
     [65, 70, 97, 102, 46, 58, 48, 57],
     [65, 70, 97, 102, 46, 58, 48, 57],
     [65, 70, 97, 102, 46, 53, 58, 48],
     [52, 54, 57, 65, 70, 97, 102, 46],
     [58, 48, 53, 54, 57, 65, 70, 97],
     [102, 46, 58, 48, 57, 65, 70, 97],
     [102, 46, 58, 48, 57, 65, 70, 97],
     [102, 93, 48, 57, 65, 70, 97, 102],
     [58, 48, 57, 65, 70, 97, 102, 48],
     [49, 50, 93, 51, 57, 65, 70, 97],
     [102, 46, 58, 93, 48, 57, 65, 70],
     [97, 102, 58, 93, 48, 57, 65, 70],
     [97, 102, 58, 93, 48, 57, 65, 70],
     [97, 102, 58, 93, 48, 57, 65, 70],
     [97, 102, 46, 58, 93, 48, 57, 65],
     [70, 97, 102, 46, 58, 93, 48, 57],
     [65, 70, 97, 102, 46, 58, 93, 48],
     [57, 65, 70, 97, 102, 46, 53, 58],
     [93, 48, 52, 54, 57, 65, 70, 97],
     [102, 46, 58, 93, 48, 53, 54, 57],
     [65, 70, 97, 102, 46, 58, 93, 48],
     [57, 65, 70, 97, 102, 46, 58, 93],
     [48, 57, 65, 70, 97, 102, 58, 93],
     [48, 57, 65, 70, 97, 102, 48, 49],
     [50, 93, 51, 57, 65, 70, 97, 102],
     [46, 58, 93, 48, 57, 65, 70, 97],
     [102, 58, 93, 48, 57, 65, 70, 97],
     [102, 58, 93, 48, 57, 65, 70, 97],
     [102, 58, 93, 48, 49, 50, 51, 57],
     [65, 70, 97, 102, 46, 58, 93, 48],
     [57, 65, 70, 97, 102, 46, 58, 93],
     [48, 57, 65, 70, 97, 102, 46, 58],
     [93, 48, 57, 65, 70, 97, 102, 46],
     [53, 58, 93, 48, 52, 54, 57, 65],
     [70, 97, 102, 46, 58, 93, 48, 53],
     [54, 57, 65, 70, 97, 102, 46, 58],
     [93, 48, 57, 65, 70, 97, 102, 46],
     [58, 93, 48, 57, 65, 70, 97, 102],
     [58, 93, 48, 57, 65, 70, 97, 102],
     [48, 49, 50, 93, 51, 57, 65, 70],
     [97, 102, 46, 58, 93, 48, 57, 65],
     [70, 97, 102, 58, 93, 48, 57, 65],
     [70, 97, 102, 58, 93, 48, 57, 65],
     [70, 97, 102, 58, 93, 48, 49, 50],
     [51, 57, 65, 70, 97, 102, 46, 58],
     [93, 48, 57, 65, 70, 97, 102, 46],
     [58, 93, 48, 57, 65, 70, 97, 102],
     [46, 58, 93, 48, 57, 65, 70, 97],
     [102, 46, 53, 58, 93, 48, 52, 54],
     [57, 65, 70, 97, 102, 46, 58, 93],
     [48, 53, 54, 57, 65, 70, 97, 102],
     [46, 58, 93, 48, 57, 65, 70, 97],
     [102, 46, 58, 93, 48, 57, 65, 70],
     [97, 102, 58, 93, 48, 57, 65, 70],
     [97, 102, 48, 49, 50, 93, 51, 57],
     [65, 70, 97, 102, 46, 58, 93, 48],
     [57, 65, 70, 97, 102, 58, 93, 48],
     [57, 65, 70, 97, 102, 58, 93, 48],
     [57, 65, 70, 97, 102, 58, 93, 48],
     [49, 50, 51, 57, 65, 70, 97, 102],
     [46, 58, 93, 48, 57, 65, 70, 97],
     [102, 46, 58, 93, 48, 57, 65, 70],
     [97, 102, 46, 58, 93, 48, 57, 65],
     [70, 97, 102, 46, 53, 58, 93, 48],
     [52, 54, 57, 65, 70, 97, 102, 46],
     [58, 93, 48, 53, 54, 57, 65, 70],
     [97, 102, 46, 58, 93, 48, 57, 65],
     [70, 97, 102, 46, 58, 93, 48, 57],
     [65, 70, 97, 102, 58, 93, 48, 57],
     [65, 70, 97, 102, 48, 49, 50, 93],
     [51, 57, 65, 70, 97, 102, 46, 58],
     [93, 48, 57, 65, 70, 97, 102, 58],
     [93, 48, 57, 65, 70, 97, 102, 58],
     [93, 48, 57, 65, 70, 97, 102, 58],
     [93, 48, 49, 50, 51, 57, 65, 70],
     [97, 102, 46, 58, 93, 48, 57, 65],
     [70, 97, 102, 46, 58, 93, 48, 57],
     [65, 70, 97, 102, 46, 58, 93, 48],
     [57, 65, 70, 97, 102, 46, 53, 58],
     [93, 48, 52, 54, 57, 65, 70, 97],
     [102, 46, 58, 93, 48, 53, 54, 57],
     [65, 70, 97, 102, 46, 58, 93, 48],
     [57, 65, 70, 97, 102, 46, 58, 93],
     [48, 57, 65, 70, 97, 102, 58, 93],
     [48, 57, 65, 70, 97, 102, 58, 48],
     [49, 50, 93, 51, 57, 65, 70, 97],
     [102, 46, 58, 93, 48, 57, 65, 70],
     [97, 102, 58, 93, 48, 57, 65, 70],
     [97, 102, 58, 93, 48, 57, 65, 70],
     [97, 102, 58, 93, 48, 49, 50, 51],
     [57, 65, 70, 97, 102, 46, 58, 93],
     [48, 57, 65, 70, 97, 102, 46, 58],
     [93, 48, 57, 65, 70, 97, 102, 46],
     [58, 93, 48, 57, 65, 70, 97, 102],
     [46, 53, 58, 93, 48, 52, 54, 57],
     [65, 70, 97, 102, 46, 58, 93, 48],
     [53, 54, 57, 65, 70, 97, 102, 46],
     [58, 93, 48, 57, 65, 70, 97, 102],
     [46, 58, 93, 48, 57, 65, 70, 97],
     [102, 58, 93, 48, 57, 65, 70, 97],
     [102, 48, 57, 65, 70, 97, 102, 48],
     [57, 65, 70, 97, 102, 33, 37, 47],
     [62, 63, 64, 95, 126, 36, 57, 58],
     [59, 61, 90, 97, 122, 48, 57, 65],
     [70, 97, 102, 48, 57, 65, 70, 97],
     [102, 33, 37, 62, 91, 95, 126, 36],
     [59, 61, 90, 97, 122, 43, 58, 73],
     [105, 45, 46, 48, 57, 65, 90, 97],
     [122, 43, 58, 80, 112, 45, 46, 48],
     [57, 65, 90, 97, 122, 43, 58, 83],
     [115, 45, 46, 48, 57, 65, 90, 97],
     [122, 33, 37, 48, 49, 50, 59, 61],
     [63, 91, 95, 126, 35, 47, 51, 57],
     [65, 90, 97, 122, 33, 37, 58, 61],
     [64, 95, 126, 35, 59, 63, 90, 97],
     [122, 48, 57, 65, 70, 97, 102, 48],
     [57, 65, 70, 97, 102, 33, 37, 61],
     [64, 95, 126, 36, 46, 48, 57, 65],
     [90, 97, 122, 48, 57, 65, 70, 97],
     [102, 48, 57, 65, 70, 97, 102, 48],
     [49, 50, 91, 51, 57, 65, 90, 97],
     [122, 45, 46, 95, 48, 57, 65, 90],
     [97, 122, 45, 95, 48, 57, 65, 90],
     [97, 122, 45, 46, 95, 48, 57, 65],
     [90, 97, 122, 48, 57, 65, 90, 97],
     [122, 45, 46, 58, 59, 62, 63, 95],
     [48, 57, 65, 90, 97, 122, 45, 95],
     [48, 57, 65, 90, 97, 122, 58, 59],
     [62, 63, 48, 57, 65, 90, 97, 122],
     [48, 54, 49, 53, 55, 57, 48, 49],
     [57, 48, 49, 57, 49, 57, 59, 62],
     [63, 33, 37, 76, 79, 84, 93, 95],
     [108, 111, 116, 126, 36, 43, 45, 58],
     [65, 91, 97, 122, 33, 37, 59, 61],
     [62, 63, 93, 95, 126, 36, 43, 45],
     [58, 65, 91, 97, 122, 48, 57, 65],
     [70, 97, 102, 48, 57, 65, 70, 97],
     [102, 33, 37, 59, 61, 62, 63, 93],
     [95, 126, 36, 43, 45, 58, 65, 91],
     [97, 122, 33, 37, 59, 62, 63, 93],
     [95, 126, 36, 43, 45, 58, 65, 91],
     [97, 122, 48, 57, 65, 70, 97, 102],
     [48, 57, 65, 70, 97, 102, 33, 36]]"

definition smp_trans_keys_32 :: "int list list" where
  "smp_trans_keys_32 =
    [[37, 63, 93, 95, 126, 39, 43, 45],
     [58, 65, 91, 97, 122, 33, 36, 37],
     [61, 63, 93, 95, 126, 39, 43, 45],
     [58, 65, 91, 97, 122, 48, 57, 65],
     [70, 97, 102, 48, 57, 65, 70, 97],
     [102, 33, 37, 38, 62, 63, 93, 95],
     [126, 36, 43, 45, 58, 65, 91, 97],
     [122, 48, 57, 65, 70, 97, 102, 48],
     [57, 65, 70, 97, 102, 33, 37, 93],
     [95, 126, 36, 43, 45, 58, 65, 91],
     [97, 122, 33, 37, 59, 61, 62, 63],
     [82, 93, 95, 114, 126, 36, 43, 45],
     [58, 65, 91, 97, 122, 33, 37, 59],
     [61, 62, 63, 93, 95, 126, 36, 43],
     [45, 58, 65, 91, 97, 122, 33, 37],
     [39, 47, 58, 59, 61, 62, 63, 91],
     [93, 96, 126, 36, 41, 42, 43, 45],
     [57, 65, 90, 95, 122, 33, 37, 39],
     [47, 58, 59, 62, 63, 91, 93, 96],
     [126, 36, 41, 42, 43, 45, 57, 65],
     [90, 95, 122, 33, 37, 39, 59, 62],
     [63, 126, 42, 43, 45, 46, 48, 57],
     [65, 70, 71, 90, 95, 96, 97, 102],
     [103, 122, 33, 37, 39, 59, 62, 63],
     [126, 42, 43, 45, 46, 48, 57, 65],
     [90, 95, 122, 33, 37, 39, 59, 62],
     [63, 126, 42, 43, 45, 46, 48, 57],
     [65, 70, 71, 90, 95, 96, 97, 102],
     [103, 122, 33, 37, 59, 61, 62, 63],
     [66, 86, 93, 95, 98, 118, 126, 36],
     [43, 45, 58, 65, 91, 97, 122, 33],
     [37, 59, 61, 62, 63, 93, 95, 126],
     [36, 43, 45, 58, 65, 91, 97, 122],
     [33, 37, 59, 61, 62, 63, 73, 93],
     [95, 105, 126, 36, 43, 45, 58, 65],
     [91, 97, 122, 33, 37, 59, 61, 62],
     [63, 68, 93, 95, 100, 126, 36, 43],
     [45, 58, 65, 91, 97, 122, 33, 37],
     [59, 61, 62, 63, 93, 95, 126, 36],
     [43, 45, 58, 65, 91, 97, 122, 33],
     [37, 39, 47, 58, 59, 61, 62, 63],
     [91, 93, 96, 126, 36, 41, 42, 43],
     [45, 57, 65, 90, 95, 122, 33, 37],
     [39, 47, 58, 59, 62, 63, 91, 93],
     [96, 126, 36, 41, 42, 43, 45, 57],
     [65, 90, 95, 122, 33, 37, 39, 59],
     [62, 63, 126, 42, 43, 45, 46, 48],
     [57, 65, 70, 71, 90, 95, 96, 97],
     [102, 103, 122, 33, 37, 39, 59, 62],
     [63, 126, 42, 43, 45, 46, 48, 57],
     [65, 90, 95, 122, 33, 37, 39, 59],
     [62, 63, 126, 42, 43, 45, 46, 48],
     [57, 65, 70, 71, 90, 95, 96, 97],
     [102, 103, 122, 33, 37, 59, 61, 62],
     [63, 82, 93, 95, 114, 126, 36, 43],
     [45, 58, 65, 91, 97, 122, 33, 37],
     [59, 61, 62, 63, 65, 93, 95, 97],
     [126, 36, 43, 45, 58, 66, 91, 98],
     [122, 33, 37, 59, 61, 62, 63, 78],
     [93, 95, 110, 126, 36, 43, 45, 58],
     [65, 91, 97, 122, 33, 37, 59, 61],
     [62, 63, 83, 93, 95, 115, 126, 36],
     [43, 45, 58, 65, 91, 97, 122, 33],
     [37, 59, 61, 62, 63, 80, 93, 95],
     [112, 126, 36, 43, 45, 58, 65, 91],
     [97, 122, 33, 37, 59, 61, 62, 63],
     [79, 93, 95, 111, 126, 36, 43, 45],
     [58, 65, 91, 97, 122, 33, 37, 59],
     [61, 62, 63, 82, 93, 95, 114, 126],
     [36, 43, 45, 58, 65, 91, 97, 122],
     [33, 37, 59, 61, 62, 63, 84, 93],
     [95, 116, 126, 36, 43, 45, 58, 65],
     [91, 97, 122, 33, 37, 59, 61, 62],
     [63, 93, 95, 126, 36, 43, 45, 58],
     [65, 91, 97, 122, 33, 37, 39, 47],
     [58, 59, 61, 62, 63, 83, 84, 85],
     [87, 91, 93, 96, 115, 116, 117, 119],
     [126, 36, 41, 42, 43, 45, 57, 65],
     [90, 95, 122, 33, 37, 39, 47, 58],
     [59, 62, 63, 91, 93, 96, 126, 36],
     [41, 42, 43, 45, 57, 65, 90, 95],
     [122, 33, 37, 39, 59, 62, 63, 126],
     [42, 43, 45, 46, 48, 57, 65, 70],
     [71, 90, 95, 96, 97, 102, 103, 122],
     [33, 37, 39, 59, 62, 63, 126, 42],
     [43, 45, 46, 48, 57, 65, 90, 95],
     [122, 33, 37, 39, 59, 62, 63, 126],
     [42, 43, 45, 46, 48, 57, 65, 70],
     [71, 90, 95, 96, 97, 102, 103, 122],
     [33, 37, 39, 47, 58, 59, 62, 63],
     [67, 91, 93, 96, 99, 126, 36, 41],
     [42, 43, 45, 57, 65, 90, 95, 122],
     [33, 37, 39, 47, 58, 59, 62, 63],
     [84, 91, 93, 96, 116, 126, 36, 41],
     [42, 43, 45, 57, 65, 90, 95, 122],
     [33, 37, 39, 47, 58, 59, 62, 63],
     [80, 91, 93, 96, 112, 126, 36, 41],
     [42, 43, 45, 57, 65, 90, 95, 122],
     [33, 37, 39, 47, 58, 59, 62, 63],
     [91, 93, 96, 126, 36, 41, 42, 43],
     [45, 57, 65, 90, 95, 122, 33, 37],
     [39, 47, 58, 59, 62, 63, 67, 76],
     [91, 93, 96, 99, 108, 126, 36, 41],
     [42, 43, 45, 57, 65, 90, 95, 122],
     [33, 37, 39, 47, 58, 59, 62, 63],
     [80, 91, 93, 96, 112, 126, 36, 41],
     [42, 43, 45, 57, 65, 90, 95, 122],
     [33, 37, 39, 47, 58, 59, 62, 63],
     [91, 93, 96, 126, 36, 41, 42, 43],
     [45, 57, 65, 90, 95, 122, 33, 37],
     [39, 47, 58, 59, 62, 63, 83, 91],
     [93, 96, 115, 126, 36, 41, 42, 43],
     [45, 57, 65, 90, 95, 122, 33, 37],
     [39, 47, 58, 59, 62, 63, 91, 93],
     [96, 126, 36, 41, 42, 43, 45, 57],
     [65, 90, 95, 122, 33, 37, 39, 47],
     [58, 59, 62, 63, 68, 91, 93, 96],
     [100, 126, 36, 41, 42, 43, 45, 57],
     [65, 90, 95, 122, 33, 37, 39, 47],
     [58, 59, 62, 63, 80, 91, 93, 96],
     [112, 126, 36, 41, 42, 43, 45, 57],
     [65, 90, 95, 122, 33, 37, 39, 47],
     [58, 59, 62, 63, 91, 93, 96, 126],
     [36, 41, 42, 43, 45, 57, 65, 90],
     [95, 122, 33, 37, 39, 47, 58, 59],
     [62, 63, 83, 91, 93, 96, 115, 126],
     [36, 41, 42, 43, 45, 57, 65, 90],
     [95, 122, 33, 37, 39, 47, 58, 59],
     [62, 63, 83, 91, 93, 96, 115, 126],
     [36, 41, 42, 43, 45, 57, 65, 90],
     [95, 122, 33, 37, 39, 47, 58, 59],
     [62, 63, 91, 93, 96, 126, 36, 41],
     [42, 43, 45, 57, 65, 90, 95, 122],
     [59, 62, 63, 48, 57, 59, 62, 63],
     [48, 57, 59, 62, 63, 48, 57, 59],
     [62, 63, 48, 57, 53, 59, 62, 63],
     [48, 52, 54, 57, 53, 59, 62, 63],
     [48, 52, 54, 57, 51, 59, 62, 63],
     [48, 50, 52, 57, 59, 62, 63, 48],
     [53, 48, 49, 50, 51, 57, 65, 90],
     [97, 122, 45, 46, 95, 48, 57, 65],
     [90, 97, 122, 48, 49, 50, 51, 57],
     [65, 90, 97, 122, 45, 46, 95, 48],
     [57, 65, 90, 97, 122, 48, 49, 50],
     [51, 57, 65, 90, 97, 122, 45, 46],
     [58, 59, 62, 63, 95, 48, 57, 65],
     [90, 97, 122, 45, 46, 58, 59, 62],
     [63, 95, 48, 57, 65, 90, 97, 122],
     [45, 46, 58, 59, 62, 63, 95, 48],
     [57, 65, 90, 97, 122, 45, 46, 53]]"

definition smp_trans_keys_33 :: "int list list" where
  "smp_trans_keys_33 =
    [[58, 59, 62, 63, 95, 48, 52, 54],
     [57, 65, 90, 97, 122, 45, 46, 58],
     [59, 62, 63, 95, 48, 53, 54, 57],
     [65, 90, 97, 122, 45, 46, 95, 48],
     [57, 65, 90, 97, 122, 45, 46, 95],
     [48, 57, 65, 90, 97, 122, 45, 46],
     [53, 95, 48, 52, 54, 57, 65, 90],
     [97, 122, 45, 46, 95, 48, 53, 54],
     [57, 65, 90, 97, 122, 45, 46, 95],
     [48, 57, 65, 90, 97, 122, 45, 46],
     [95, 48, 57, 65, 90, 97, 122, 45],
     [46, 53, 95, 48, 52, 54, 57, 65],
     [90, 97, 122, 45, 46, 95, 48, 53],
     [54, 57, 65, 90, 97, 122, 45, 46],
     [95, 48, 57, 65, 90, 97, 122, 45],
     [46, 95, 48, 57, 65, 90, 97, 122],
     [45, 46, 53, 95, 48, 52, 54, 57],
     [65, 90, 97, 122, 45, 46, 95, 48],
     [53, 54, 57, 65, 90, 97, 122, 58],
     [48, 57, 65, 70, 97, 102, 58, 48],
     [57, 65, 70, 97, 102, 58, 48, 57],
     [65, 70, 97, 102, 58, 48, 57, 65],
     [70, 97, 102, 58, 58, 48, 57, 65],
     [70, 97, 102, 58, 48, 57, 65, 70],
     [97, 102, 58, 48, 57, 65, 70, 97],
     [102, 58, 48, 57, 65, 70, 97, 102],
     [58, 58, 48, 57, 65, 70, 97, 102],
     [58, 48, 57, 65, 70, 97, 102, 58],
     [48, 57, 65, 70, 97, 102, 58, 48],
     [57, 65, 70, 97, 102, 58, 58, 48],
     [57, 65, 70, 97, 102, 58, 48, 57],
     [65, 70, 97, 102, 58, 48, 57, 65],
     [70, 97, 102, 58, 48, 57, 65, 70],
     [97, 102, 58, 58, 48, 57, 65, 70],
     [97, 102, 58, 48, 57, 65, 70, 97],
     [102, 58, 48, 57, 65, 70, 97, 102],
     [58, 48, 57, 65, 70, 97, 102, 58],
     [58, 48, 57, 65, 70, 97, 102, 58],
     [48, 57, 65, 70, 97, 102, 58, 48],
     [57, 65, 70, 97, 102, 58, 48, 57],
     [65, 70, 97, 102, 58, 48, 49, 50],
     [58, 51, 57, 65, 70, 97, 102, 46],
     [58, 48, 57, 65, 70, 97, 102, 48],
     [49, 50, 51, 57, 46, 48, 49, 50],
     [51, 57, 46, 48, 49, 50, 51, 57],
     [93, 58, 59, 62, 63, 93, 48, 57],
     [93, 48, 57, 53, 93, 48, 52, 54],
     [57, 93, 48, 53, 46, 48, 57, 46],
     [48, 57, 46, 53, 48, 52, 54, 57],
     [46, 48, 53, 46, 48, 57, 46, 48],
     [57, 46, 53, 48, 52, 54, 57, 46],
     [48, 53, 58, 48, 57, 65, 70, 97],
     [102, 58, 48, 57, 65, 70, 97, 102],
     [58, 58, 48, 57, 65, 70, 97, 102],
     [93, 48, 57, 65, 70, 97, 102, 93],
     [48, 57, 65, 70, 97, 102, 93, 48],
     [57, 65, 70, 97, 102, 46, 58, 48],
     [57, 65, 70, 97, 102, 46, 58, 48],
     [57, 65, 70, 97, 102, 46, 58, 48],
     [57, 65, 70, 97, 102, 46, 53, 58],
     [48, 52, 54, 57, 65, 70, 97, 102],
     [46, 58, 48, 53, 54, 57, 65, 70],
     [97, 102, 46, 58, 48, 57, 65, 70],
     [97, 102, 46, 58, 48, 57, 65, 70],
     [97, 102, 93, 48, 57, 65, 70, 97],
     [102, 58, 48, 57, 65, 70, 97, 102],
     [48, 49, 50, 93, 51, 57, 65, 70],
     [97, 102, 46, 58, 93, 48, 57, 65],
     [70, 97, 102, 58, 93, 48, 57, 65],
     [70, 97, 102, 58, 93, 48, 57, 65],
     [70, 97, 102, 58, 93, 48, 57, 65],
     [70, 97, 102, 46, 58, 93, 48, 57],
     [65, 70, 97, 102, 46, 58, 93, 48],
     [57, 65, 70, 97, 102, 46, 58, 93],
     [48, 57, 65, 70, 97, 102, 46, 53],
     [58, 93, 48, 52, 54, 57, 65, 70],
     [97, 102, 46, 58, 93, 48, 53, 54],
     [57, 65, 70, 97, 102, 46, 58, 93],
     [48, 57, 65, 70, 97, 102, 46, 58],
     [93, 48, 57, 65, 70, 97, 102, 58],
     [93, 48, 57, 65, 70, 97, 102, 48],
     [49, 50, 93, 51, 57, 65, 70, 97],
     [102, 46, 58, 93, 48, 57, 65, 70],
     [97, 102, 58, 93, 48, 57, 65, 70],
     [97, 102, 58, 93, 48, 57, 65, 70],
     [97, 102, 58, 93, 48, 49, 50, 51],
     [57, 65, 70, 97, 102, 46, 58, 93],
     [48, 57, 65, 70, 97, 102, 46, 58],
     [93, 48, 57, 65, 70, 97, 102, 46],
     [58, 93, 48, 57, 65, 70, 97, 102],
     [46, 53, 58, 93, 48, 52, 54, 57],
     [65, 70, 97, 102, 46, 58, 93, 48],
     [53, 54, 57, 65, 70, 97, 102, 46],
     [58, 93, 48, 57, 65, 70, 97, 102],
     [46, 58, 93, 48, 57, 65, 70, 97],
     [102, 58, 93, 48, 57, 65, 70, 97],
     [102, 48, 49, 50, 93, 51, 57, 65],
     [70, 97, 102, 46, 58, 93, 48, 57],
     [65, 70, 97, 102, 58, 93, 48, 57],
     [65, 70, 97, 102, 58, 93, 48, 57],
     [65, 70, 97, 102, 58, 93, 48, 49],
     [50, 51, 57, 65, 70, 97, 102, 46],
     [58, 93, 48, 57, 65, 70, 97, 102],
     [46, 58, 93, 48, 57, 65, 70, 97],
     [102, 46, 58, 93, 48, 57, 65, 70],
     [97, 102, 46, 53, 58, 93, 48, 52],
     [54, 57, 65, 70, 97, 102, 46, 58],
     [93, 48, 53, 54, 57, 65, 70, 97],
     [102, 46, 58, 93, 48, 57, 65, 70],
     [97, 102, 46, 58, 93, 48, 57, 65],
     [70, 97, 102, 58, 93, 48, 57, 65],
     [70, 97, 102, 48, 49, 50, 93, 51],
     [57, 65, 70, 97, 102, 46, 58, 93],
     [48, 57, 65, 70, 97, 102, 58, 93],
     [48, 57, 65, 70, 97, 102, 58, 93],
     [48, 57, 65, 70, 97, 102, 58, 93],
     [48, 49, 50, 51, 57, 65, 70, 97],
     [102, 46, 58, 93, 48, 57, 65, 70],
     [97, 102, 46, 58, 93, 48, 57, 65],
     [70, 97, 102, 46, 58, 93, 48, 57],
     [65, 70, 97, 102, 46, 53, 58, 93],
     [48, 52, 54, 57, 65, 70, 97, 102],
     [46, 58, 93, 48, 53, 54, 57, 65],
     [70, 97, 102, 46, 58, 93, 48, 57],
     [65, 70, 97, 102, 46, 58, 93, 48],
     [57, 65, 70, 97, 102, 58, 93, 48],
     [57, 65, 70, 97, 102, 48, 49, 50],
     [93, 51, 57, 65, 70, 97, 102, 46],
     [58, 93, 48, 57, 65, 70, 97, 102],
     [58, 93, 48, 57, 65, 70, 97, 102],
     [58, 93, 48, 57, 65, 70, 97, 102],
     [58, 93, 48, 49, 50, 51, 57, 65],
     [70, 97, 102, 46, 58, 93, 48, 57],
     [65, 70, 97, 102, 46, 58, 93, 48],
     [57, 65, 70, 97, 102, 46, 58, 93],
     [48, 57, 65, 70, 97, 102, 46, 53],
     [58, 93, 48, 52, 54, 57, 65, 70],
     [97, 102, 46, 58, 93, 48, 53, 54],
     [57, 65, 70, 97, 102, 46, 58, 93],
     [48, 57, 65, 70, 97, 102, 46, 58],
     [93, 48, 57, 65, 70, 97, 102, 58],
     [93, 48, 57, 65, 70, 97, 102, 58],
     [48, 49, 50, 93, 51, 57, 65, 70],
     [97, 102, 46, 58, 93, 48, 57, 65],
     [70, 97, 102, 58, 93, 48, 57, 65],
     [70, 97, 102, 58, 93, 48, 57, 65],
     [70, 97, 102, 58, 93, 48, 49, 50],
     [51, 57, 65, 70, 97, 102, 46, 58],
     [93, 48, 57, 65, 70, 97, 102, 46],
     [58, 93, 48, 57, 65, 70, 97, 102]]"

definition smp_trans_keys_34 :: "int list list" where
  "smp_trans_keys_34 =
    [[46, 58, 93, 48, 57, 65, 70, 97],
     [102, 46, 53, 58, 93, 48, 52, 54],
     [57, 65, 70, 97, 102, 46, 58, 93],
     [48, 53, 54, 57, 65, 70, 97, 102],
     [46, 58, 93, 48, 57, 65, 70, 97],
     [102, 46, 58, 93, 48, 57, 65, 70],
     [97, 102, 58, 93, 48, 57, 65, 70],
     [97, 102, 33, 37, 45, 46, 58, 59],
     [61, 63, 64, 95, 126, 35, 47, 48],
     [57, 65, 90, 97, 122, 33, 37, 45],
     [58, 59, 61, 63, 64, 95, 126, 35],
     [47, 48, 57, 65, 90, 97, 122, 33],
     [37, 45, 46, 58, 59, 61, 63, 64],
     [95, 126, 35, 47, 48, 57, 65, 90],
     [97, 122, 33, 37, 58, 59, 61, 63],
     [64, 95, 126, 35, 47, 48, 57, 65],
     [90, 97, 122, 33, 37, 45, 46, 58],
     [59, 61, 62, 63, 64, 95, 126, 35],
     [47, 48, 57, 65, 90, 97, 122, 33],
     [37, 45, 58, 59, 61, 63, 64, 95],
     [126, 35, 47, 48, 57, 65, 90, 97],
     [122, 33, 37, 58, 59, 61, 62, 63],
     [64, 95, 126, 35, 47, 48, 57, 65],
     [90, 97, 122, 33, 37, 48, 54, 61],
     [64, 95, 126, 36, 46, 49, 53, 55],
     [57, 65, 90, 97, 122, 33, 37, 48],
     [61, 64, 95, 126, 36, 46, 49, 57],
     [65, 90, 97, 122, 33, 37, 48, 61],
     [64, 95, 126, 36, 46, 49, 57, 65],
     [90, 97, 122, 33, 37, 48, 61, 64],
     [95, 126, 36, 46, 49, 57, 65, 90],
     [97, 122, 33, 37, 59, 62, 63, 64],
     [95, 126, 36, 46, 48, 57, 61, 90],
     [97, 122, 33, 37, 59, 62, 63, 64],
     [95, 126, 36, 46, 48, 57, 61, 90],
     [97, 122, 33, 37, 59, 62, 63, 64],
     [95, 126, 36, 46, 48, 57, 61, 90],
     [97, 122, 33, 37, 59, 62, 63, 64],
     [95, 126, 36, 46, 48, 57, 61, 90],
     [97, 122, 33, 37, 59, 62, 63, 64],
     [95, 126, 36, 46, 48, 57, 61, 90],
     [97, 122, 33, 37, 53, 59, 62, 63],
     [64, 95, 126, 36, 46, 48, 52, 54],
     [57, 61, 90, 97, 122, 33, 37, 53],
     [59, 62, 63, 64, 95, 126, 36, 46],
     [48, 52, 54, 57, 61, 90, 97, 122],
     [33, 37, 51, 59, 62, 63, 64, 95],
     [126, 36, 46, 48, 50, 52, 57, 61],
     [90, 97, 122, 33, 37, 59, 62, 63],
     [64, 95, 126, 36, 46, 48, 53, 54],
     [57, 61, 90, 97, 122, 33, 35, 37],
     [44, 58, 59, 61, 63, 64, 76, 79],
     [84, 91, 93, 95, 108, 111, 116, 126],
     [36, 57, 65, 90, 97, 122, 33, 35],
     [37, 44, 58, 59, 61, 62, 63, 64],
     [91, 93, 95, 126, 36, 57, 65, 90],
     [97, 122, 48, 57, 65, 70, 97, 102],
     [48, 57, 65, 70, 97, 102, 33, 37],
     [44, 47, 58, 59, 61, 62, 63, 64],
     [91, 93, 95, 126, 36, 57, 65, 90],
     [97, 122, 48, 57, 65, 70, 97, 102],
     [48, 57, 65, 70, 97, 102, 33, 37],
     [44, 47, 58, 59, 61, 62, 63, 64],
     [91, 93, 95, 126, 36, 57, 65, 90],
     [97, 122, 33, 37, 44, 47, 58, 59],
     [61, 62, 63, 64, 91, 93, 95, 126],
     [36, 57, 65, 90, 97, 122, 48, 57],
     [65, 70, 97, 102, 48, 57, 65, 70],
     [97, 102, 33, 37, 44, 47, 58, 61],
     [64, 91, 93, 95, 126, 36, 57, 65],
     [90, 97, 122, 33, 35, 37, 44, 58],
     [59, 61, 62, 63, 64, 91, 93, 95],
     [126, 36, 57, 65, 90, 97, 122, 33],
     [35, 37, 44, 58, 59, 61, 62, 63],
     [64, 91, 93, 95, 126, 36, 57, 65],
     [90, 97, 122, 48, 57, 65, 70, 97],
     [102, 48, 57, 65, 70, 97, 102, 33],
     [36, 37, 44, 58, 59, 61, 64, 91],
     [93, 95, 126, 35, 38, 39, 57, 63],
     [90, 97, 122, 33, 36, 37, 44, 58],
     [59, 61, 64, 91, 93, 95, 126, 35],
     [38, 39, 57, 63, 90, 97, 122, 48],
     [57, 65, 70, 97, 102, 48, 57, 65],
     [70, 97, 102, 33, 37, 38, 44, 47],
     [58, 61, 63, 64, 91, 93, 95, 126],
     [36, 57, 65, 90, 97, 122, 48, 57],
     [65, 70, 97, 102, 48, 57, 65, 70],
     [97, 102, 33, 37, 38, 44, 47, 58],
     [61, 62, 63, 64, 91, 93, 95, 126],
     [36, 57, 65, 90, 97, 122, 48, 57],
     [65, 70, 97, 102, 48, 57, 65, 70],
     [97, 102, 33, 37, 38, 44, 47, 58],
     [61, 63, 64, 91, 93, 95, 126, 36],
     [57, 65, 90, 97, 122, 33, 35, 37],
     [38, 44, 58, 59, 61, 62, 64, 91],
     [93, 95, 126, 36, 57, 63, 90, 97],
     [122, 48, 57, 65, 70, 97, 102, 48],
     [57, 65, 70, 97, 102, 33, 35, 37],
     [44, 58, 59, 61, 63, 64, 91, 93],
     [95, 126, 36, 57, 65, 90, 97, 122],
     [33, 35, 37, 44, 58, 59, 61, 62],
     [63, 64, 82, 91, 93, 95, 114, 126],
     [36, 57, 65, 90, 97, 122, 33, 35],
     [37, 44, 58, 59, 61, 62, 63, 64],
     [91, 93, 95, 126, 36, 57, 65, 90],
     [97, 122, 33, 35, 37, 39, 44, 47],
     [58, 59, 61, 62, 63, 64, 91, 93],
     [96, 126, 36, 41, 42, 57, 65, 90],
     [95, 122, 33, 35, 37, 39, 44, 47],
     [58, 59, 61, 62, 63, 64, 91, 93],
     [96, 126, 36, 41, 42, 57, 65, 90],
     [95, 122, 33, 37, 39, 59, 62, 63],
     [126, 42, 43, 45, 46, 48, 57, 65],
     [70, 71, 90, 95, 96, 97, 102, 103],
     [122, 33, 37, 39, 59, 62, 63, 126],
     [42, 43, 45, 46, 48, 57, 65, 70],
     [71, 90, 95, 96, 97, 102, 103, 122],
     [33, 35, 37, 44, 58, 59, 61, 62],
     [63, 64, 66, 86, 91, 93, 95, 98],
     [118, 126, 36, 57, 65, 90, 97, 122],
     [33, 35, 37, 44, 58, 59, 61, 62],
     [63, 64, 91, 93, 95, 126, 36, 57],
     [65, 90, 97, 122, 33, 35, 37, 44],
     [58, 59, 61, 62, 63, 64, 73, 91],
     [93, 95, 105, 126, 36, 57, 65, 90],
     [97, 122, 33, 35, 37, 44, 58, 59],
     [61, 62, 63, 64, 68, 91, 93, 95],
     [100, 126, 36, 57, 65, 90, 97, 122],
     [33, 35, 37, 44, 58, 59, 61, 62],
     [63, 64, 91, 93, 95, 126, 36, 57],
     [65, 90, 97, 122, 33, 35, 37, 39],
     [44, 47, 58, 59, 61, 62, 63, 64],
     [91, 93, 96, 126, 36, 41, 42, 57],
     [65, 90, 95, 122, 33, 35, 37, 39],
     [44, 47, 58, 59, 61, 62, 63, 64],
     [91, 93, 96, 126, 36, 41, 42, 57],
     [65, 90, 95, 122, 33, 37, 39, 59],
     [62, 63, 126, 42, 43, 45, 46, 48],
     [57, 65, 70, 71, 90, 95, 96, 97],
     [102, 103, 122, 33, 37, 39, 59, 62],
     [63, 126, 42, 43, 45, 46, 48, 57],
     [65, 70, 71, 90, 95, 96, 97, 102],
     [103, 122, 33, 35, 37, 44, 58, 59],
     [61, 62, 63, 64, 82, 91, 93, 95],
     [114, 126, 36, 57, 65, 90, 97, 122],
     [33, 35, 37, 44, 58, 59, 61, 62],
     [63, 64, 65, 91, 93, 95, 97, 126],
     [36, 57, 66, 90, 98, 122, 33, 35],
     [37, 44, 58, 59, 61, 62, 63, 64],
     [78, 91, 93, 95, 110, 126, 36, 57]]"

definition smp_trans_keys_35 :: "int list list" where
  "smp_trans_keys_35 =
    [[65, 90, 97, 122, 33, 35, 37, 44],
     [58, 59, 61, 62, 63, 64, 83, 91],
     [93, 95, 115, 126, 36, 57, 65, 90],
     [97, 122, 33, 35, 37, 44, 58, 59],
     [61, 62, 63, 64, 80, 91, 93, 95],
     [112, 126, 36, 57, 65, 90, 97, 122],
     [33, 35, 37, 44, 58, 59, 61, 62],
     [63, 64, 79, 91, 93, 95, 111, 126],
     [36, 57, 65, 90, 97, 122, 33, 35],
     [37, 44, 58, 59, 61, 62, 63, 64],
     [82, 91, 93, 95, 114, 126, 36, 57],
     [65, 90, 97, 122, 33, 35, 37, 44],
     [58, 59, 61, 62, 63, 64, 84, 91],
     [93, 95, 116, 126, 36, 57, 65, 90],
     [97, 122, 33, 35, 37, 44, 58, 59],
     [61, 62, 63, 64, 91, 93, 95, 126],
     [36, 57, 65, 90, 97, 122, 33, 35],
     [37, 39, 44, 47, 58, 59, 61, 62],
     [63, 64, 83, 84, 85, 87, 91, 93],
     [96, 115, 116, 117, 119, 126, 36, 41],
     [42, 57, 65, 90, 95, 122, 33, 35],
     [37, 39, 44, 47, 58, 59, 61, 62],
     [63, 64, 91, 93, 96, 126, 36, 41],
     [42, 57, 65, 90, 95, 122, 33, 37],
     [39, 59, 62, 63, 126, 42, 43, 45],
     [46, 48, 57, 65, 70, 71, 90, 95],
     [96, 97, 102, 103, 122, 33, 37, 39],
     [59, 62, 63, 126, 42, 43, 45, 46],
     [48, 57, 65, 70, 71, 90, 95, 96],
     [97, 102, 103, 122, 33, 35, 37, 39],
     [44, 47, 58, 59, 61, 62, 63, 64],
     [67, 91, 93, 96, 99, 126, 36, 41],
     [42, 57, 65, 90, 95, 122, 33, 35],
     [37, 39, 44, 47, 58, 59, 61, 62],
     [63, 64, 84, 91, 93, 96, 116, 126],
     [36, 41, 42, 57, 65, 90, 95, 122],
     [33, 35, 37, 39, 44, 47, 58, 59],
     [61, 62, 63, 64, 80, 91, 93, 96],
     [112, 126, 36, 41, 42, 57, 65, 90],
     [95, 122, 33, 35, 37, 39, 44, 47],
     [58, 59, 61, 62, 63, 64, 91, 93],
     [96, 126, 36, 41, 42, 57, 65, 90],
     [95, 122, 33, 35, 37, 39, 44, 47],
     [58, 59, 61, 62, 63, 64, 67, 76],
     [91, 93, 96, 99, 108, 126, 36, 41],
     [42, 57, 65, 90, 95, 122, 33, 35],
     [37, 39, 44, 47, 58, 59, 61, 62],
     [63, 64, 80, 91, 93, 96, 112, 126],
     [36, 41, 42, 57, 65, 90, 95, 122],
     [33, 35, 37, 39, 44, 47, 58, 59],
     [61, 62, 63, 64, 91, 93, 96, 126],
     [36, 41, 42, 57, 65, 90, 95, 122],
     [33, 35, 37, 39, 44, 47, 58, 59],
     [61, 62, 63, 64, 83, 91, 93, 96],
     [115, 126, 36, 41, 42, 57, 65, 90],
     [95, 122, 33, 35, 37, 39, 44, 47],
     [58, 59, 61, 62, 63, 64, 91, 93],
     [96, 126, 36, 41, 42, 57, 65, 90],
     [95, 122, 33, 35, 37, 39, 44, 47],
     [58, 59, 61, 62, 63, 64, 68, 91],
     [93, 96, 100, 126, 36, 41, 42, 57],
     [65, 90, 95, 122, 33, 35, 37, 39],
     [44, 47, 58, 59, 61, 62, 63, 64],
     [80, 91, 93, 96, 112, 126, 36, 41],
     [42, 57, 65, 90, 95, 122, 33, 35],
     [37, 39, 44, 47, 58, 59, 61, 62],
     [63, 64, 91, 93, 96, 126, 36, 41],
     [42, 57, 65, 90, 95, 122, 33, 35],
     [37, 39, 44, 47, 58, 59, 61, 62],
     [63, 64, 83, 91, 93, 96, 115, 126],
     [36, 41, 42, 57, 65, 90, 95, 122],
     [33, 35, 37, 39, 44, 47, 58, 59],
     [61, 62, 63, 64, 83, 91, 93, 96],
     [115, 126, 36, 41, 42, 57, 65, 90],
     [95, 122, 33, 35, 37, 39, 44, 47],
     [58, 59, 61, 62, 63, 64, 91, 93],
     [96, 126, 36, 41, 42, 57, 65, 90],
     [95, 122, 33, 37, 48, 49, 50, 58],
     [59, 61, 63, 64, 95, 126, 35, 47],
     [51, 57, 65, 90, 97, 122, 33, 37],
     [45, 46, 58, 59, 61, 63, 64, 95],
     [126, 35, 47, 48, 57, 65, 90, 97],
     [122, 33, 37, 48, 49, 50, 58, 59],
     [61, 63, 64, 95, 126, 35, 47, 51],
     [57, 65, 90, 97, 122, 33, 37, 45],
     [46, 58, 59, 61, 63, 64, 95, 126],
     [35, 47, 48, 57, 65, 90, 97, 122],
     [33, 37, 48, 49, 50, 58, 59, 61],
     [63, 64, 95, 126, 35, 47, 51, 57],
     [65, 90, 97, 122, 33, 37, 45, 46],
     [58, 59, 61, 62, 63, 64, 95, 126],
     [35, 47, 48, 57, 65, 90, 97, 122],
     [33, 37, 45, 46, 58, 59, 61, 62],
     [63, 64, 95, 126, 35, 47, 48, 57],
     [65, 90, 97, 122, 33, 37, 45, 46],
     [58, 59, 61, 62, 63, 64, 95, 126],
     [35, 47, 48, 57, 65, 90, 97, 122],
     [33, 37, 45, 46, 53, 58, 59, 61],
     [62, 63, 64, 95, 126, 35, 47, 48],
     [52, 54, 57, 65, 90, 97, 122, 33],
     [37, 45, 46, 58, 59, 61, 62, 63],
     [64, 95, 126, 35, 47, 48, 53, 54],
     [57, 65, 90, 97, 122, 33, 37, 45],
     [46, 58, 59, 61, 63, 64, 95, 126],
     [35, 47, 48, 57, 65, 90, 97, 122],
     [33, 37, 45, 46, 58, 59, 61, 63],
     [64, 95, 126, 35, 47, 48, 57, 65],
     [90, 97, 122, 33, 37, 45, 46, 53],
     [58, 59, 61, 63, 64, 95, 126, 35],
     [47, 48, 52, 54, 57, 65, 90, 97],
     [122, 33, 37, 45, 46, 58, 59, 61],
     [63, 64, 95, 126, 35, 47, 48, 53],
     [54, 57, 65, 90, 97, 122, 33, 37],
     [45, 46, 58, 59, 61, 63, 64, 95],
     [126, 35, 47, 48, 57, 65, 90, 97],
     [122, 33, 37, 45, 46, 58, 59, 61],
     [63, 64, 95, 126, 35, 47, 48, 57],
     [65, 90, 97, 122, 33, 37, 45, 46],
     [53, 58, 59, 61, 63, 64, 95, 126],
     [35, 47, 48, 52, 54, 57, 65, 90],
     [97, 122, 33, 37, 45, 46, 58, 59],
     [61, 63, 64, 95, 126, 35, 47, 48],
     [53, 54, 57, 65, 90, 97, 122, 33],
     [37, 45, 46, 58, 59, 61, 63, 64],
     [95, 126, 35, 47, 48, 57, 65, 90],
     [97, 122, 33, 37, 45, 46, 58, 59],
     [61, 63, 64, 95, 126, 35, 47, 48],
     [57, 65, 90, 97, 122, 33, 37, 45],
     [46, 53, 58, 59, 61, 63, 64, 95],
     [126, 35, 47, 48, 52, 54, 57, 65],
     [90, 97, 122, 33, 37, 45, 46, 58],
     [59, 61, 63, 64, 95, 126, 35, 47],
     [48, 53, 54, 57, 65, 90, 97, 122],
     [43, 58, 45, 46, 48, 57, 65, 90],
     [97, 122, 43, 58, 69, 101, 45, 46],
     [48, 57, 65, 90, 97, 122, 43, 58],
     [76, 108, 45, 46, 48, 57, 65, 90],
     [97, 122, 43, 58, 45, 46, 48, 57],
     [65, 90, 97, 122, 35, 42, 43, 40],
     [41, 45, 46, 48, 57, 65, 70, 97],
     [102, 35, 59, 62, 40, 42, 45, 46],
     [48, 57, 65, 70, 97, 102, 45, 80],
     [112, 48, 57, 65, 90, 97, 122, 45],
     [59, 61, 62, 48, 57, 65, 90, 97],
     [122, 33, 37, 93, 95, 126, 36, 43],
     [45, 58, 65, 91, 97, 122, 33, 37],
     [59, 62, 93, 95, 126, 36, 43, 45],
     [58, 65, 91, 97, 122, 48, 57, 65],
     [70, 97, 102, 48, 57, 65, 70, 97],
     [102, 45, 59, 61, 62, 72, 104, 48]]"

definition smp_trans_keys_36 :: "int list list" where
  "smp_trans_keys_36 =
    [[57, 65, 90, 97, 122, 45, 59, 61],
     [62, 79, 111, 48, 57, 65, 90, 97],
     [122, 45, 59, 61, 62, 78, 110, 48],
     [57, 65, 90, 97, 122, 45, 59, 61],
     [62, 69, 101, 48, 57, 65, 90, 97],
     [122, 45, 59, 61, 62, 48, 57, 65],
     [90, 97, 122, 45, 59, 61, 62, 67],
     [99, 48, 57, 65, 90, 97, 122, 45],
     [59, 61, 62, 79, 111, 48, 57, 65],
     [90, 97, 122, 45, 59, 61, 62, 78],
     [110, 48, 57, 65, 90, 97, 122, 45],
     [59, 61, 62, 84, 116, 48, 57, 65],
     [90, 97, 122, 45, 59, 61, 62, 69],
     [101, 48, 57, 65, 90, 97, 122, 45],
     [59, 61, 62, 88, 120, 48, 57, 65],
     [90, 97, 122, 45, 59, 61, 62, 84],
     [116, 48, 57, 65, 90, 97, 122, 45],
     [59, 61, 62, 48, 57, 65, 90, 97],
     [122, 33, 37, 43, 58, 91, 93, 95],
     [126, 36, 42, 45, 47, 48, 57, 65],
     [90, 97, 122, 33, 37, 47, 58, 59],
     [62, 93, 95, 126, 36, 39, 40, 41],
     [42, 43, 45, 46, 48, 57, 65, 91],
     [97, 122, 33, 37, 47, 58, 59, 62],
     [93, 95, 126, 36, 39, 40, 41, 42],
     [43, 45, 57, 65, 91, 97, 122, 33],
     [37, 45, 46, 47, 58, 59, 62, 91],
     [93, 95, 126, 36, 43, 48, 57, 65],
     [90, 97, 122, 33, 37, 45, 58, 59],
     [62, 91, 93, 95, 126, 36, 43, 46],
     [47, 48, 57, 65, 90, 97, 122, 33],
     [37, 58, 59, 62, 91, 93, 95, 126],
     [36, 43, 45, 47, 48, 57, 65, 90],
     [97, 122, 33, 37, 45, 46, 47, 58],
     [59, 62, 91, 93, 95, 126, 36, 43],
     [48, 57, 65, 90, 97, 122, 33, 37],
     [45, 58, 59, 62, 91, 93, 95, 126],
     [36, 43, 46, 47, 48, 57, 65, 90],
     [97, 122, 33, 37, 58, 59, 62, 91],
     [93, 95, 126, 36, 43, 45, 47, 48],
     [57, 65, 90, 97, 122, 35, 42, 40],
     [41, 45, 46, 48, 57, 65, 70, 97],
     [102, 40, 41, 45, 46, 48, 57, 59],
     [62, 40, 41, 45, 46, 48, 57, 9],
     [13, 32, 33, 37, 39, 60, 126, 42],
     [43, 45, 46, 48, 57, 65, 90, 95],
     [122, 9, 13, 32, 33, 37, 39, 60],
     [126, 42, 43, 45, 46, 48, 57, 65],
     [90, 95, 122, 10, 9, 32, 9, 32],
     [33, 37, 39, 60, 126, 42, 43, 45],
     [46, 48, 57, 65, 90, 95, 122, 9],
     [13, 34, 92, -64, -33, -32, -17, -16],
     [-9, -8, -5, -4, -3, 32, 126, -128],
     [-65, -128, -65, -128, -65, -128, -65, -128],
     [-65, 10, 9, 32, 9, 13, 32, 60],
     [9, 13, 32, 60, 0, 9, 11, 12],
     [14, 127, 9, 13, 32, 33, 37, 39],
     [42, 43, 58, 60, 126, 45, 46, 48],
     [57, 65, 90, 95, 96, 97, 122, 9],
     [13, 32, 33, 35, 37, 47, 58, 59],
     [61, 64, 91, 95, 126, 36, 43, 45],
     [57, 65, 90, 97, 122, 9, 13, 32],
     [33, 35, 37, 58, 59, 61, 64, 95],
     [126, 36, 43, 45, 57, 65, 90, 97],
     [122, 33, 37, 58, 61, 64, 95, 126],
     [35, 43, 45, 57, 65, 90, 97, 122],
     [48, 57, 65, 70, 97, 102, 48, 57],
     [65, 70, 97, 102, 33, 37, 61, 64],
     [95, 126, 36, 43, 45, 46, 48, 57],
     [65, 90, 97, 122, 48, 57, 65, 70],
     [97, 102, 48, 57, 65, 70, 97, 102],
     [48, 49, 50, 91, 51, 57, 65, 90],
     [97, 122, 45, 46, 95, 48, 57, 65],
     [90, 97, 122, 45, 95, 48, 57, 65],
     [90, 97, 122, 45, 46, 95, 48, 57],
     [65, 90, 97, 122, 48, 57, 65, 90],
     [97, 122, 9, 13, 32, 45, 46, 58],
     [59, 95, 48, 57, 65, 90, 97, 122],
     [45, 95, 48, 57, 65, 90, 97, 122],
     [9, 13, 32, 58, 59, 48, 57, 65],
     [90, 97, 122, 48, 54, 49, 53, 55],
     [57, 48, 49, 57, 48, 49, 57, 49],
     [57, 9, 13, 32, 59, 9, 13, 32],
     [59, 48, 57, 9, 13, 32, 59, 48],
     [57, 9, 13, 32, 59, 48, 57, 9],
     [13, 32, 59, 48, 57, 9, 13, 32],
     [53, 59, 48, 52, 54, 57, 9, 13],
     [32, 53, 59, 48, 52, 54, 57, 9],
     [13, 32, 51, 59, 48, 50, 52, 57],
     [9, 13, 32, 59, 48, 53, 48, 49],
     [50, 51, 57, 65, 90, 97, 122, 45],
     [46, 95, 48, 57, 65, 90, 97, 122],
     [48, 49, 50, 51, 57, 65, 90, 97],
     [122, 45, 46, 95, 48, 57, 65, 90],
     [97, 122, 48, 49, 50, 51, 57, 65],
     [90, 97, 122, 9, 13, 32, 45, 46],
     [58, 59, 95, 48, 57, 65, 90, 97],
     [122, 9, 13, 32, 45, 46, 58, 59],
     [95, 48, 57, 65, 90, 97, 122, 9],
     [13, 32, 45, 46, 58, 59, 95, 48],
     [57, 65, 90, 97, 122, 9, 13, 32],
     [45, 46, 53, 58, 59, 95, 48, 52],
     [54, 57, 65, 90, 97, 122, 9, 13],
     [32, 45, 46, 58, 59, 95, 48, 53],
     [54, 57, 65, 90, 97, 122, 45, 46],
     [95, 48, 57, 65, 90, 97, 122, 45],
     [46, 95, 48, 57, 65, 90, 97, 122],
     [45, 46, 53, 95, 48, 52, 54, 57],
     [65, 90, 97, 122, 45, 46, 95, 48],
     [53, 54, 57, 65, 90, 97, 122, 45],
     [46, 95, 48, 57, 65, 90, 97, 122],
     [45, 46, 95, 48, 57, 65, 90, 97],
     [122, 45, 46, 53, 95, 48, 52, 54],
     [57, 65, 90, 97, 122, 45, 46, 95],
     [48, 53, 54, 57, 65, 90, 97, 122],
     [45, 46, 95, 48, 57, 65, 90, 97],
     [122, 45, 46, 95, 48, 57, 65, 90],
     [97, 122, 45, 46, 53, 95, 48, 52],
     [54, 57, 65, 90, 97, 122, 45, 46],
     [95, 48, 53, 54, 57, 65, 90, 97],
     [122, 58, 48, 57, 65, 70, 97, 102],
     [58, 48, 57, 65, 70, 97, 102, 58],
     [48, 57, 65, 70, 97, 102, 58, 48],
     [57, 65, 70, 97, 102, 58, 58, 48],
     [57, 65, 70, 97, 102, 58, 48, 57],
     [65, 70, 97, 102, 58, 48, 57, 65],
     [70, 97, 102, 58, 48, 57, 65, 70],
     [97, 102, 58, 58, 48, 57, 65, 70],
     [97, 102, 58, 48, 57, 65, 70, 97],
     [102, 58, 48, 57, 65, 70, 97, 102],
     [58, 48, 57, 65, 70, 97, 102, 58],
     [58, 48, 57, 65, 70, 97, 102, 58],
     [48, 57, 65, 70, 97, 102, 58, 48],
     [57, 65, 70, 97, 102, 58, 48, 57],
     [65, 70, 97, 102, 58, 58, 48, 57],
     [65, 70, 97, 102, 58, 48, 57, 65],
     [70, 97, 102, 58, 48, 57, 65, 70],
     [97, 102, 58, 48, 57, 65, 70, 97],
     [102, 58, 58, 48, 57, 65, 70, 97],
     [102, 58, 48, 57, 65, 70, 97, 102],
     [58, 48, 57, 65, 70, 97, 102, 58],
     [48, 57, 65, 70, 97, 102, 58, 48],
     [49, 50, 58, 51, 57, 65, 70, 97],
     [102, 46, 58, 48, 57, 65, 70, 97],
     [102, 48, 49, 50, 51, 57, 46, 48],
     [49, 50, 51, 57, 46, 48, 49, 50],
     [51, 57, 93, 9, 13, 32, 58, 59],
     [93, 48, 57, 93, 48, 57, 53, 93],
     [48, 52, 54, 57, 93, 48, 53, 46],
     [48, 57, 46, 48, 57, 46, 53, 48]]"

definition smp_trans_keys_37 :: "int list list" where
  "smp_trans_keys_37 =
    [[52, 54, 57, 46, 48, 53, 46, 48],
     [57, 46, 48, 57, 46, 53, 48, 52],
     [54, 57, 46, 48, 53, 58, 48, 57],
     [65, 70, 97, 102, 58, 48, 57, 65],
     [70, 97, 102, 58, 58, 48, 57, 65],
     [70, 97, 102, 93, 48, 57, 65, 70],
     [97, 102, 93, 48, 57, 65, 70, 97],
     [102, 93, 48, 57, 65, 70, 97, 102],
     [46, 58, 48, 57, 65, 70, 97, 102],
     [46, 58, 48, 57, 65, 70, 97, 102],
     [46, 58, 48, 57, 65, 70, 97, 102],
     [46, 53, 58, 48, 52, 54, 57, 65],
     [70, 97, 102, 46, 58, 48, 53, 54],
     [57, 65, 70, 97, 102, 46, 58, 48],
     [57, 65, 70, 97, 102, 46, 58, 48],
     [57, 65, 70, 97, 102, 93, 48, 57],
     [65, 70, 97, 102, 58, 48, 57, 65],
     [70, 97, 102, 48, 49, 50, 93, 51],
     [57, 65, 70, 97, 102, 46, 58, 93],
     [48, 57, 65, 70, 97, 102, 58, 93],
     [48, 57, 65, 70, 97, 102, 58, 93],
     [48, 57, 65, 70, 97, 102, 58, 93],
     [48, 57, 65, 70, 97, 102, 46, 58],
     [93, 48, 57, 65, 70, 97, 102, 46],
     [58, 93, 48, 57, 65, 70, 97, 102],
     [46, 58, 93, 48, 57, 65, 70, 97],
     [102, 46, 53, 58, 93, 48, 52, 54],
     [57, 65, 70, 97, 102, 46, 58, 93],
     [48, 53, 54, 57, 65, 70, 97, 102],
     [46, 58, 93, 48, 57, 65, 70, 97],
     [102, 46, 58, 93, 48, 57, 65, 70],
     [97, 102, 58, 93, 48, 57, 65, 70],
     [97, 102, 48, 49, 50, 93, 51, 57],
     [65, 70, 97, 102, 46, 58, 93, 48],
     [57, 65, 70, 97, 102, 58, 93, 48],
     [57, 65, 70, 97, 102, 58, 93, 48],
     [57, 65, 70, 97, 102, 58, 93, 48],
     [49, 50, 51, 57, 65, 70, 97, 102],
     [46, 58, 93, 48, 57, 65, 70, 97],
     [102, 46, 58, 93, 48, 57, 65, 70],
     [97, 102, 46, 58, 93, 48, 57, 65],
     [70, 97, 102, 46, 53, 58, 93, 48],
     [52, 54, 57, 65, 70, 97, 102, 46],
     [58, 93, 48, 53, 54, 57, 65, 70],
     [97, 102, 46, 58, 93, 48, 57, 65],
     [70, 97, 102, 46, 58, 93, 48, 57],
     [65, 70, 97, 102, 58, 93, 48, 57],
     [65, 70, 97, 102, 48, 49, 50, 93],
     [51, 57, 65, 70, 97, 102, 46, 58],
     [93, 48, 57, 65, 70, 97, 102, 58],
     [93, 48, 57, 65, 70, 97, 102, 58],
     [93, 48, 57, 65, 70, 97, 102, 58],
     [93, 48, 49, 50, 51, 57, 65, 70],
     [97, 102, 46, 58, 93, 48, 57, 65],
     [70, 97, 102, 46, 58, 93, 48, 57],
     [65, 70, 97, 102, 46, 58, 93, 48],
     [57, 65, 70, 97, 102, 46, 53, 58],
     [93, 48, 52, 54, 57, 65, 70, 97],
     [102, 46, 58, 93, 48, 53, 54, 57],
     [65, 70, 97, 102, 46, 58, 93, 48],
     [57, 65, 70, 97, 102, 46, 58, 93],
     [48, 57, 65, 70, 97, 102, 58, 93],
     [48, 57, 65, 70, 97, 102, 48, 49],
     [50, 93, 51, 57, 65, 70, 97, 102],
     [46, 58, 93, 48, 57, 65, 70, 97],
     [102, 58, 93, 48, 57, 65, 70, 97],
     [102, 58, 93, 48, 57, 65, 70, 97],
     [102, 58, 93, 48, 49, 50, 51, 57],
     [65, 70, 97, 102, 46, 58, 93, 48],
     [57, 65, 70, 97, 102, 46, 58, 93],
     [48, 57, 65, 70, 97, 102, 46, 58],
     [93, 48, 57, 65, 70, 97, 102, 46],
     [53, 58, 93, 48, 52, 54, 57, 65],
     [70, 97, 102, 46, 58, 93, 48, 53],
     [54, 57, 65, 70, 97, 102, 46, 58],
     [93, 48, 57, 65, 70, 97, 102, 46],
     [58, 93, 48, 57, 65, 70, 97, 102],
     [58, 93, 48, 57, 65, 70, 97, 102],
     [48, 49, 50, 93, 51, 57, 65, 70],
     [97, 102, 46, 58, 93, 48, 57, 65],
     [70, 97, 102, 58, 93, 48, 57, 65],
     [70, 97, 102, 58, 93, 48, 57, 65],
     [70, 97, 102, 58, 93, 48, 49, 50],
     [51, 57, 65, 70, 97, 102, 46, 58],
     [93, 48, 57, 65, 70, 97, 102, 46],
     [58, 93, 48, 57, 65, 70, 97, 102],
     [46, 58, 93, 48, 57, 65, 70, 97],
     [102, 46, 53, 58, 93, 48, 52, 54],
     [57, 65, 70, 97, 102, 46, 58, 93],
     [48, 53, 54, 57, 65, 70, 97, 102],
     [46, 58, 93, 48, 57, 65, 70, 97],
     [102, 46, 58, 93, 48, 57, 65, 70],
     [97, 102, 58, 93, 48, 57, 65, 70],
     [97, 102, 58, 48, 49, 50, 93, 51],
     [57, 65, 70, 97, 102, 46, 58, 93],
     [48, 57, 65, 70, 97, 102, 58, 93],
     [48, 57, 65, 70, 97, 102, 58, 93],
     [48, 57, 65, 70, 97, 102, 58, 93],
     [48, 49, 50, 51, 57, 65, 70, 97],
     [102, 46, 58, 93, 48, 57, 65, 70],
     [97, 102, 46, 58, 93, 48, 57, 65],
     [70, 97, 102, 46, 58, 93, 48, 57],
     [65, 70, 97, 102, 46, 53, 58, 93],
     [48, 52, 54, 57, 65, 70, 97, 102],
     [46, 58, 93, 48, 53, 54, 57, 65],
     [70, 97, 102, 46, 58, 93, 48, 57],
     [65, 70, 97, 102, 46, 58, 93, 48],
     [57, 65, 70, 97, 102, 58, 93, 48],
     [57, 65, 70, 97, 102, 48, 57, 65],
     [70, 97, 102, 48, 57, 65, 70, 97],
     [102, 9, 13, 32, 33, 37, 47, 58],
     [59, 61, 64, 95, 126, 36, 43, 45],
     [57, 65, 90, 97, 122, 48, 57, 65],
     [70, 97, 102, 48, 57, 65, 70, 97],
     [102, 9, 13, 32, 33, 37, 59, 61],
     [95, 126, 36, 43, 45, 58, 64, 90],
     [97, 122, 48, 57, 65, 70, 97, 102],
     [48, 57, 65, 70, 97, 102, 9, 13],
     [32, 33, 37, 59, 61, 91, 95, 126],
     [36, 43, 45, 58, 64, 90, 97, 122],
     [9, 13, 32, 33, 35, 37, 47, 58],
     [59, 61, 64, 95, 126, 36, 43, 45],
     [57, 65, 90, 97, 122, 9, 13, 32],
     [33, 35, 37, 58, 59, 61, 64, 91],
     [95, 126, 36, 43, 45, 57, 65, 90],
     [97, 122, 9, 13, 32, 33, 35, 37],
     [58, 59, 61, 64, 95, 126, 36, 43],
     [45, 57, 65, 90, 97, 122, 33, 37],
     [58, 61, 64, 95, 126, 35, 43, 45],
     [57, 65, 90, 97, 122, 48, 57, 65],
     [70, 97, 102, 48, 57, 65, 70, 97],
     [102, 33, 37, 61, 64, 95, 126, 36],
     [43, 45, 46, 48, 57, 65, 90, 97],
     [122, 48, 57, 65, 70, 97, 102, 48],
     [57, 65, 70, 97, 102, 48, 49, 50],
     [91, 51, 57, 65, 90, 97, 122, 45],
     [46, 95, 48, 57, 65, 90, 97, 122],
     [45, 95, 48, 57, 65, 90, 97, 122],
     [45, 46, 95, 48, 57, 65, 90, 97],
     [122, 48, 57, 65, 90, 97, 122, 9],
     [13, 32, 45, 46, 47, 58, 59, 95],
     [48, 57, 65, 90, 97, 122, 45, 95],
     [48, 57, 65, 90, 97, 122, 9, 13],
     [32, 47, 58, 59, 48, 57, 65, 90],
     [97, 122, 48, 54, 49, 53, 55, 57],
     [48, 49, 57, 48, 49, 57, 49, 57],
     [9, 13, 32, 47, 59, 9, 13, 32],
     [47, 59, 48, 57, 9, 13, 32, 47],
     [59, 48, 57, 9, 13, 32, 47, 59],
     [48, 57, 9, 13, 32, 47, 59, 48]]"

definition smp_trans_keys_38 :: "int list list" where
  "smp_trans_keys_38 =
    [[57, 9, 13, 32, 47, 53, 59, 48],
     [52, 54, 57, 9, 13, 32, 47, 53],
     [59, 48, 52, 54, 57, 9, 13, 32],
     [47, 51, 59, 48, 50, 52, 57, 9],
     [13, 32, 47, 59, 48, 53, 48, 49],
     [50, 51, 57, 65, 90, 97, 122, 45],
     [46, 95, 48, 57, 65, 90, 97, 122],
     [48, 49, 50, 51, 57, 65, 90, 97],
     [122, 45, 46, 95, 48, 57, 65, 90],
     [97, 122, 48, 49, 50, 51, 57, 65],
     [90, 97, 122, 9, 13, 32, 45, 46],
     [47, 58, 59, 95, 48, 57, 65, 90],
     [97, 122, 9, 13, 32, 45, 46, 47],
     [58, 59, 95, 48, 57, 65, 90, 97],
     [122, 9, 13, 32, 45, 46, 47, 58],
     [59, 95, 48, 57, 65, 90, 97, 122],
     [9, 13, 32, 45, 46, 47, 53, 58],
     [59, 95, 48, 52, 54, 57, 65, 90],
     [97, 122, 9, 13, 32, 45, 46, 47],
     [58, 59, 95, 48, 53, 54, 57, 65],
     [90, 97, 122, 45, 46, 95, 48, 57],
     [65, 90, 97, 122, 45, 46, 95, 48],
     [57, 65, 90, 97, 122, 45, 46, 53],
     [95, 48, 52, 54, 57, 65, 90, 97],
     [122, 45, 46, 95, 48, 53, 54, 57],
     [65, 90, 97, 122, 45, 46, 95, 48],
     [57, 65, 90, 97, 122, 45, 46, 95],
     [48, 57, 65, 90, 97, 122, 45, 46],
     [53, 95, 48, 52, 54, 57, 65, 90],
     [97, 122, 45, 46, 95, 48, 53, 54],
     [57, 65, 90, 97, 122, 45, 46, 95],
     [48, 57, 65, 90, 97, 122, 45, 46],
     [95, 48, 57, 65, 90, 97, 122, 45],
     [46, 53, 95, 48, 52, 54, 57, 65],
     [90, 97, 122, 45, 46, 95, 48, 53],
     [54, 57, 65, 90, 97, 122, 58, 48],
     [57, 65, 70, 97, 102, 58, 48, 57],
     [65, 70, 97, 102, 58, 48, 57, 65],
     [70, 97, 102, 58, 48, 57, 65, 70],
     [97, 102, 58, 58, 48, 57, 65, 70],
     [97, 102, 58, 48, 57, 65, 70, 97],
     [102, 58, 48, 57, 65, 70, 97, 102],
     [58, 48, 57, 65, 70, 97, 102, 58],
     [58, 48, 57, 65, 70, 97, 102, 58],
     [48, 57, 65, 70, 97, 102, 58, 48],
     [57, 65, 70, 97, 102, 58, 48, 57],
     [65, 70, 97, 102, 58, 58, 48, 57],
     [65, 70, 97, 102, 58, 48, 57, 65],
     [70, 97, 102, 58, 48, 57, 65, 70],
     [97, 102, 58, 48, 57, 65, 70, 97],
     [102, 58, 58, 48, 57, 65, 70, 97],
     [102, 58, 48, 57, 65, 70, 97, 102],
     [58, 48, 57, 65, 70, 97, 102, 58],
     [48, 57, 65, 70, 97, 102, 58, 58],
     [48, 57, 65, 70, 97, 102, 58, 48],
     [57, 65, 70, 97, 102, 58, 48, 57],
     [65, 70, 97, 102, 58, 48, 57, 65],
     [70, 97, 102, 58, 48, 49, 50, 58],
     [51, 57, 65, 70, 97, 102, 46, 58],
     [48, 57, 65, 70, 97, 102, 48, 49],
     [50, 51, 57, 46, 48, 49, 50, 51],
     [57, 46, 48, 49, 50, 51, 57, 93],
     [9, 13, 32, 47, 58, 59, 93, 48],
     [57, 93, 48, 57, 53, 93, 48, 52],
     [54, 57, 93, 48, 53, 46, 48, 57],
     [46, 48, 57, 46, 53, 48, 52, 54],
     [57, 46, 48, 53, 46, 48, 57, 46],
     [48, 57, 46, 53, 48, 52, 54, 57],
     [46, 48, 53, 58, 48, 57, 65, 70],
     [97, 102, 58, 48, 57, 65, 70, 97],
     [102, 58, 58, 48, 57, 65, 70, 97],
     [102, 93, 48, 57, 65, 70, 97, 102],
     [93, 48, 57, 65, 70, 97, 102, 93],
     [48, 57, 65, 70, 97, 102, 46, 58],
     [48, 57, 65, 70, 97, 102, 46, 58],
     [48, 57, 65, 70, 97, 102, 46, 58],
     [48, 57, 65, 70, 97, 102, 46, 53],
     [58, 48, 52, 54, 57, 65, 70, 97],
     [102, 46, 58, 48, 53, 54, 57, 65],
     [70, 97, 102, 46, 58, 48, 57, 65],
     [70, 97, 102, 46, 58, 48, 57, 65],
     [70, 97, 102, 93, 48, 57, 65, 70],
     [97, 102, 58, 48, 57, 65, 70, 97],
     [102, 48, 49, 50, 93, 51, 57, 65],
     [70, 97, 102, 46, 58, 93, 48, 57],
     [65, 70, 97, 102, 58, 93, 48, 57],
     [65, 70, 97, 102, 58, 93, 48, 57],
     [65, 70, 97, 102, 58, 93, 48, 57],
     [65, 70, 97, 102, 46, 58, 93, 48],
     [57, 65, 70, 97, 102, 46, 58, 93],
     [48, 57, 65, 70, 97, 102, 46, 58],
     [93, 48, 57, 65, 70, 97, 102, 46],
     [53, 58, 93, 48, 52, 54, 57, 65],
     [70, 97, 102, 46, 58, 93, 48, 53],
     [54, 57, 65, 70, 97, 102, 46, 58],
     [93, 48, 57, 65, 70, 97, 102, 46],
     [58, 93, 48, 57, 65, 70, 97, 102],
     [58, 93, 48, 57, 65, 70, 97, 102],
     [48, 49, 50, 93, 51, 57, 65, 70],
     [97, 102, 46, 58, 93, 48, 57, 65],
     [70, 97, 102, 58, 93, 48, 57, 65],
     [70, 97, 102, 58, 93, 48, 57, 65],
     [70, 97, 102, 58, 93, 48, 49, 50],
     [51, 57, 65, 70, 97, 102, 46, 58],
     [93, 48, 57, 65, 70, 97, 102, 46],
     [58, 93, 48, 57, 65, 70, 97, 102],
     [46, 58, 93, 48, 57, 65, 70, 97],
     [102, 46, 53, 58, 93, 48, 52, 54],
     [57, 65, 70, 97, 102, 46, 58, 93],
     [48, 53, 54, 57, 65, 70, 97, 102],
     [46, 58, 93, 48, 57, 65, 70, 97],
     [102, 46, 58, 93, 48, 57, 65, 70],
     [97, 102, 58, 93, 48, 57, 65, 70],
     [97, 102, 48, 49, 50, 93, 51, 57],
     [65, 70, 97, 102, 46, 58, 93, 48],
     [57, 65, 70, 97, 102, 58, 93, 48],
     [57, 65, 70, 97, 102, 58, 93, 48],
     [57, 65, 70, 97, 102, 58, 93, 48],
     [49, 50, 51, 57, 65, 70, 97, 102],
     [46, 58, 93, 48, 57, 65, 70, 97],
     [102, 46, 58, 93, 48, 57, 65, 70],
     [97, 102, 46, 58, 93, 48, 57, 65],
     [70, 97, 102, 46, 53, 58, 93, 48],
     [52, 54, 57, 65, 70, 97, 102, 46],
     [58, 93, 48, 53, 54, 57, 65, 70],
     [97, 102, 46, 58, 93, 48, 57, 65],
     [70, 97, 102, 46, 58, 93, 48, 57],
     [65, 70, 97, 102, 58, 93, 48, 57],
     [65, 70, 97, 102, 48, 49, 50, 93],
     [51, 57, 65, 70, 97, 102, 46, 58],
     [93, 48, 57, 65, 70, 97, 102, 58],
     [93, 48, 57, 65, 70, 97, 102, 58],
     [93, 48, 57, 65, 70, 97, 102, 58],
     [93, 48, 49, 50, 51, 57, 65, 70],
     [97, 102, 46, 58, 93, 48, 57, 65],
     [70, 97, 102, 46, 58, 93, 48, 57],
     [65, 70, 97, 102, 46, 58, 93, 48],
     [57, 65, 70, 97, 102, 46, 53, 58],
     [93, 48, 52, 54, 57, 65, 70, 97],
     [102, 46, 58, 93, 48, 53, 54, 57],
     [65, 70, 97, 102, 46, 58, 93, 48],
     [57, 65, 70, 97, 102, 46, 58, 93],
     [48, 57, 65, 70, 97, 102, 58, 93],
     [48, 57, 65, 70, 97, 102, 48, 49],
     [50, 93, 51, 57, 65, 70, 97, 102],
     [46, 58, 93, 48, 57, 65, 70, 97],
     [102, 58, 93, 48, 57, 65, 70, 97],
     [102, 58, 93, 48, 57, 65, 70, 97],
     [102, 58, 93, 48, 49, 50, 51, 57],
     [65, 70, 97, 102, 46, 58, 93, 48]]"

definition smp_trans_keys_39 :: "int list list" where
  "smp_trans_keys_39 =
    [[57, 65, 70, 97, 102, 46, 58, 93],
     [48, 57, 65, 70, 97, 102, 46, 58],
     [93, 48, 57, 65, 70, 97, 102, 46],
     [53, 58, 93, 48, 52, 54, 57, 65],
     [70, 97, 102, 46, 58, 93, 48, 53],
     [54, 57, 65, 70, 97, 102, 46, 58],
     [93, 48, 57, 65, 70, 97, 102, 46],
     [58, 93, 48, 57, 65, 70, 97, 102],
     [58, 93, 48, 57, 65, 70, 97, 102],
     [58, 48, 49, 50, 93, 51, 57, 65],
     [70, 97, 102, 46, 58, 93, 48, 57],
     [65, 70, 97, 102, 58, 93, 48, 57],
     [65, 70, 97, 102, 58, 93, 48, 57],
     [65, 70, 97, 102, 58, 93, 48, 49],
     [50, 51, 57, 65, 70, 97, 102, 46],
     [58, 93, 48, 57, 65, 70, 97, 102],
     [46, 58, 93, 48, 57, 65, 70, 97],
     [102, 46, 58, 93, 48, 57, 65, 70],
     [97, 102, 46, 53, 58, 93, 48, 52],
     [54, 57, 65, 70, 97, 102, 46, 58],
     [93, 48, 53, 54, 57, 65, 70, 97],
     [102, 46, 58, 93, 48, 57, 65, 70],
     [97, 102, 46, 58, 93, 48, 57, 65],
     [70, 97, 102, 58, 93, 48, 57, 65],
     [70, 97, 102, 48, 57, 65, 70, 97],
     [102, 48, 57, 65, 70, 97, 102, 9],
     [13, 32, 33, 37, 47, 58, 59, 61],
     [64, 95, 126, 36, 43, 45, 57, 65],
     [90, 97, 122, 48, 57, 65, 70, 97],
     [102, 48, 57, 65, 70, 97, 102, 9],
     [13, 32, 33, 37, 59, 61, 91, 95],
     [126, 36, 43, 45, 58, 64, 90, 97],
     [122, 9, 13, 32, 33, 37, 39, 42],
     [43, 58, 60, 73, 105, 126, 45, 46],
     [48, 57, 65, 90, 95, 96, 97, 122],
     [9, 13, 32, 33, 37, 39, 42, 43],
     [58, 60, 80, 112, 126, 45, 46, 48],
     [57, 65, 90, 95, 96, 97, 122, 9],
     [13, 32, 33, 37, 39, 42, 43, 58],
     [60, 83, 115, 126, 45, 46, 48, 57],
     [65, 90, 95, 96, 97, 122, 33, 37],
     [48, 49, 50, 61, 91, 95, 126, 35],
     [43, 45, 47, 51, 57, 65, 90, 97],
     [122, 33, 37, 58, 61, 64, 95, 126],
     [35, 43, 45, 57, 65, 90, 97, 122],
     [48, 57, 65, 70, 97, 102, 48, 57],
     [65, 70, 97, 102, 33, 37, 61, 64],
     [95, 126, 36, 43, 45, 46, 48, 57],
     [65, 90, 97, 122, 48, 57, 65, 70],
     [97, 102, 48, 57, 65, 70, 97, 102],
     [48, 49, 50, 91, 51, 57, 65, 90],
     [97, 122, 45, 46, 95, 48, 57, 65],
     [90, 97, 122, 45, 95, 48, 57, 65],
     [90, 97, 122, 45, 46, 95, 48, 57],
     [65, 90, 97, 122, 48, 57, 65, 90],
     [97, 122, 9, 13, 32, 45, 46, 58],
     [59, 95, 48, 57, 65, 90, 97, 122],
     [45, 95, 48, 57, 65, 90, 97, 122],
     [9, 13, 32, 58, 59, 48, 57, 65],
     [90, 97, 122, 48, 54, 49, 53, 55],
     [57, 48, 49, 57, 48, 49, 57, 49],
     [57, 9, 13, 32, 59, 9, 13, 32],
     [59, 48, 57, 9, 13, 32, 59, 48],
     [57, 9, 13, 32, 59, 48, 57, 9],
     [13, 32, 59, 48, 57, 9, 13, 32],
     [53, 59, 48, 52, 54, 57, 9, 13],
     [32, 53, 59, 48, 52, 54, 57, 9],
     [13, 32, 51, 59, 48, 50, 52, 57],
     [9, 13, 32, 59, 48, 53, 48, 49],
     [50, 51, 57, 65, 90, 97, 122, 45],
     [46, 95, 48, 57, 65, 90, 97, 122],
     [48, 49, 50, 51, 57, 65, 90, 97],
     [122, 45, 46, 95, 48, 57, 65, 90],
     [97, 122, 48, 49, 50, 51, 57, 65],
     [90, 97, 122, 9, 13, 32, 45, 46],
     [58, 59, 95, 48, 57, 65, 90, 97],
     [122, 9, 13, 32, 45, 46, 58, 59],
     [95, 48, 57, 65, 90, 97, 122, 9],
     [13, 32, 45, 46, 58, 59, 95, 48],
     [57, 65, 90, 97, 122, 9, 13, 32],
     [45, 46, 53, 58, 59, 95, 48, 52],
     [54, 57, 65, 90, 97, 122, 9, 13],
     [32, 45, 46, 58, 59, 95, 48, 53],
     [54, 57, 65, 90, 97, 122, 45, 46],
     [95, 48, 57, 65, 90, 97, 122, 45],
     [46, 95, 48, 57, 65, 90, 97, 122],
     [45, 46, 53, 95, 48, 52, 54, 57],
     [65, 90, 97, 122, 45, 46, 95, 48],
     [53, 54, 57, 65, 90, 97, 122, 45],
     [46, 95, 48, 57, 65, 90, 97, 122],
     [45, 46, 95, 48, 57, 65, 90, 97],
     [122, 45, 46, 53, 95, 48, 52, 54],
     [57, 65, 90, 97, 122, 45, 46, 95],
     [48, 53, 54, 57, 65, 90, 97, 122],
     [45, 46, 95, 48, 57, 65, 90, 97],
     [122, 45, 46, 95, 48, 57, 65, 90],
     [97, 122, 45, 46, 53, 95, 48, 52],
     [54, 57, 65, 90, 97, 122, 45, 46],
     [95, 48, 53, 54, 57, 65, 90, 97],
     [122, 58, 48, 57, 65, 70, 97, 102],
     [58, 48, 57, 65, 70, 97, 102, 58],
     [48, 57, 65, 70, 97, 102, 58, 48],
     [57, 65, 70, 97, 102, 58, 58, 48],
     [57, 65, 70, 97, 102, 58, 48, 57],
     [65, 70, 97, 102, 58, 48, 57, 65],
     [70, 97, 102, 58, 48, 57, 65, 70],
     [97, 102, 58, 58, 48, 57, 65, 70],
     [97, 102, 58, 48, 57, 65, 70, 97],
     [102, 58, 48, 57, 65, 70, 97, 102],
     [58, 48, 57, 65, 70, 97, 102, 58],
     [58, 48, 57, 65, 70, 97, 102, 58],
     [48, 57, 65, 70, 97, 102, 58, 48],
     [57, 65, 70, 97, 102, 58, 48, 57],
     [65, 70, 97, 102, 58, 58, 48, 57],
     [65, 70, 97, 102, 58, 48, 57, 65],
     [70, 97, 102, 58, 48, 57, 65, 70],
     [97, 102, 58, 48, 57, 65, 70, 97],
     [102, 58, 58, 48, 57, 65, 70, 97],
     [102, 58, 48, 57, 65, 70, 97, 102],
     [58, 48, 57, 65, 70, 97, 102, 58],
     [48, 57, 65, 70, 97, 102, 58, 48],
     [49, 50, 58, 51, 57, 65, 70, 97],
     [102, 46, 58, 48, 57, 65, 70, 97],
     [102, 48, 49, 50, 51, 57, 46, 48],
     [49, 50, 51, 57, 46, 48, 49, 50],
     [51, 57, 93, 9, 13, 32, 58, 59],
     [93, 48, 57, 93, 48, 57, 53, 93],
     [48, 52, 54, 57, 93, 48, 53, 46],
     [48, 57, 46, 48, 57, 46, 53, 48],
     [52, 54, 57, 46, 48, 53, 46, 48],
     [57, 46, 48, 57, 46, 53, 48, 52],
     [54, 57, 46, 48, 53, 58, 48, 57],
     [65, 70, 97, 102, 58, 48, 57, 65],
     [70, 97, 102, 58, 58, 48, 57, 65],
     [70, 97, 102, 93, 48, 57, 65, 70],
     [97, 102, 93, 48, 57, 65, 70, 97],
     [102, 93, 48, 57, 65, 70, 97, 102],
     [46, 58, 48, 57, 65, 70, 97, 102],
     [46, 58, 48, 57, 65, 70, 97, 102],
     [46, 58, 48, 57, 65, 70, 97, 102],
     [46, 53, 58, 48, 52, 54, 57, 65],
     [70, 97, 102, 46, 58, 48, 53, 54],
     [57, 65, 70, 97, 102, 46, 58, 48],
     [57, 65, 70, 97, 102, 46, 58, 48],
     [57, 65, 70, 97, 102, 93, 48, 57],
     [65, 70, 97, 102, 58, 48, 57, 65],
     [70, 97, 102, 48, 49, 50, 93, 51],
     [57, 65, 70, 97, 102, 46, 58, 93],
     [48, 57, 65, 70, 97, 102, 58, 93],
     [48, 57, 65, 70, 97, 102, 58, 93]]"

definition smp_trans_keys_40 :: "int list list" where
  "smp_trans_keys_40 =
    [[48, 57, 65, 70, 97, 102, 58, 93],
     [48, 57, 65, 70, 97, 102, 46, 58],
     [93, 48, 57, 65, 70, 97, 102, 46],
     [58, 93, 48, 57, 65, 70, 97, 102],
     [46, 58, 93, 48, 57, 65, 70, 97],
     [102, 46, 53, 58, 93, 48, 52, 54],
     [57, 65, 70, 97, 102, 46, 58, 93],
     [48, 53, 54, 57, 65, 70, 97, 102],
     [46, 58, 93, 48, 57, 65, 70, 97],
     [102, 46, 58, 93, 48, 57, 65, 70],
     [97, 102, 58, 93, 48, 57, 65, 70],
     [97, 102, 48, 49, 50, 93, 51, 57],
     [65, 70, 97, 102, 46, 58, 93, 48],
     [57, 65, 70, 97, 102, 58, 93, 48],
     [57, 65, 70, 97, 102, 58, 93, 48],
     [57, 65, 70, 97, 102, 58, 93, 48],
     [49, 50, 51, 57, 65, 70, 97, 102],
     [46, 58, 93, 48, 57, 65, 70, 97],
     [102, 46, 58, 93, 48, 57, 65, 70],
     [97, 102, 46, 58, 93, 48, 57, 65],
     [70, 97, 102, 46, 53, 58, 93, 48],
     [52, 54, 57, 65, 70, 97, 102, 46],
     [58, 93, 48, 53, 54, 57, 65, 70],
     [97, 102, 46, 58, 93, 48, 57, 65],
     [70, 97, 102, 46, 58, 93, 48, 57],
     [65, 70, 97, 102, 58, 93, 48, 57],
     [65, 70, 97, 102, 48, 49, 50, 93],
     [51, 57, 65, 70, 97, 102, 46, 58],
     [93, 48, 57, 65, 70, 97, 102, 58],
     [93, 48, 57, 65, 70, 97, 102, 58],
     [93, 48, 57, 65, 70, 97, 102, 58],
     [93, 48, 49, 50, 51, 57, 65, 70],
     [97, 102, 46, 58, 93, 48, 57, 65],
     [70, 97, 102, 46, 58, 93, 48, 57],
     [65, 70, 97, 102, 46, 58, 93, 48],
     [57, 65, 70, 97, 102, 46, 53, 58],
     [93, 48, 52, 54, 57, 65, 70, 97],
     [102, 46, 58, 93, 48, 53, 54, 57],
     [65, 70, 97, 102, 46, 58, 93, 48],
     [57, 65, 70, 97, 102, 46, 58, 93],
     [48, 57, 65, 70, 97, 102, 58, 93],
     [48, 57, 65, 70, 97, 102, 48, 49],
     [50, 93, 51, 57, 65, 70, 97, 102],
     [46, 58, 93, 48, 57, 65, 70, 97],
     [102, 58, 93, 48, 57, 65, 70, 97],
     [102, 58, 93, 48, 57, 65, 70, 97],
     [102, 58, 93, 48, 49, 50, 51, 57],
     [65, 70, 97, 102, 46, 58, 93, 48],
     [57, 65, 70, 97, 102, 46, 58, 93],
     [48, 57, 65, 70, 97, 102, 46, 58],
     [93, 48, 57, 65, 70, 97, 102, 46],
     [53, 58, 93, 48, 52, 54, 57, 65],
     [70, 97, 102, 46, 58, 93, 48, 53],
     [54, 57, 65, 70, 97, 102, 46, 58],
     [93, 48, 57, 65, 70, 97, 102, 46],
     [58, 93, 48, 57, 65, 70, 97, 102],
     [58, 93, 48, 57, 65, 70, 97, 102],
     [48, 49, 50, 93, 51, 57, 65, 70],
     [97, 102, 46, 58, 93, 48, 57, 65],
     [70, 97, 102, 58, 93, 48, 57, 65],
     [70, 97, 102, 58, 93, 48, 57, 65],
     [70, 97, 102, 58, 93, 48, 49, 50],
     [51, 57, 65, 70, 97, 102, 46, 58],
     [93, 48, 57, 65, 70, 97, 102, 46],
     [58, 93, 48, 57, 65, 70, 97, 102],
     [46, 58, 93, 48, 57, 65, 70, 97],
     [102, 46, 53, 58, 93, 48, 52, 54],
     [57, 65, 70, 97, 102, 46, 58, 93],
     [48, 53, 54, 57, 65, 70, 97, 102],
     [46, 58, 93, 48, 57, 65, 70, 97],
     [102, 46, 58, 93, 48, 57, 65, 70],
     [97, 102, 58, 93, 48, 57, 65, 70],
     [97, 102, 58, 48, 49, 50, 93, 51],
     [57, 65, 70, 97, 102, 46, 58, 93],
     [48, 57, 65, 70, 97, 102, 58, 93],
     [48, 57, 65, 70, 97, 102, 58, 93],
     [48, 57, 65, 70, 97, 102, 58, 93],
     [48, 49, 50, 51, 57, 65, 70, 97],
     [102, 46, 58, 93, 48, 57, 65, 70],
     [97, 102, 46, 58, 93, 48, 57, 65],
     [70, 97, 102, 46, 58, 93, 48, 57],
     [65, 70, 97, 102, 46, 53, 58, 93],
     [48, 52, 54, 57, 65, 70, 97, 102],
     [46, 58, 93, 48, 53, 54, 57, 65],
     [70, 97, 102, 46, 58, 93, 48, 57],
     [65, 70, 97, 102, 46, 58, 93, 48],
     [57, 65, 70, 97, 102, 58, 93, 48],
     [57, 65, 70, 97, 102, 33, 37, 45],
     [46, 47, 58, 61, 64, 95, 126, 35],
     [43, 48, 57, 65, 90, 97, 122, 33],
     [37, 45, 58, 61, 64, 95, 126, 35],
     [43, 46, 47, 48, 57, 65, 90, 97],
     [122, 33, 37, 45, 46, 47, 58, 61],
     [64, 95, 126, 35, 43, 48, 57, 65],
     [90, 97, 122, 33, 37, 58, 61, 64],
     [95, 126, 35, 43, 45, 47, 48, 57],
     [65, 90, 97, 122, 9, 13, 32, 33],
     [37, 45, 46, 47, 58, 59, 61, 64],
     [95, 126, 35, 43, 48, 57, 65, 90],
     [97, 122, 33, 37, 45, 58, 61, 64],
     [95, 126, 35, 43, 46, 47, 48, 57],
     [65, 90, 97, 122, 9, 13, 32, 33],
     [37, 58, 59, 61, 64, 95, 126, 35],
     [43, 45, 47, 48, 57, 65, 90, 97],
     [122, 33, 37, 48, 54, 61, 64, 95],
     [126, 36, 43, 45, 46, 49, 53, 55],
     [57, 65, 90, 97, 122, 33, 37, 48],
     [61, 64, 95, 126, 36, 43, 45, 46],
     [49, 57, 65, 90, 97, 122, 33, 37],
     [48, 61, 64, 95, 126, 36, 43, 45],
     [46, 49, 57, 65, 90, 97, 122, 33],
     [37, 48, 61, 64, 95, 126, 36, 43],
     [45, 46, 49, 57, 65, 90, 97, 122],
     [9, 13, 32, 33, 37, 59, 61, 64],
     [95, 126, 36, 43, 45, 46, 48, 57],
     [65, 90, 97, 122, 9, 13, 32, 33],
     [37, 59, 61, 64, 95, 126, 36, 43],
     [45, 46, 48, 57, 65, 90, 97, 122],
     [9, 13, 32, 33, 37, 59, 61, 64],
     [95, 126, 36, 43, 45, 46, 48, 57],
     [65, 90, 97, 122, 9, 13, 32, 33],
     [37, 59, 61, 64, 95, 126, 36, 43],
     [45, 46, 48, 57, 65, 90, 97, 122],
     [9, 13, 32, 33, 37, 59, 61, 64],
     [95, 126, 36, 43, 45, 46, 48, 57],
     [65, 90, 97, 122, 9, 13, 32, 33],
     [37, 53, 59, 61, 64, 95, 126, 36],
     [43, 45, 46, 48, 52, 54, 57, 65],
     [90, 97, 122, 9, 13, 32, 33, 37],
     [53, 59, 61, 64, 95, 126, 36, 43],
     [45, 46, 48, 52, 54, 57, 65, 90],
     [97, 122, 9, 13, 32, 33, 37, 51],
     [59, 61, 64, 95, 126, 36, 43, 45],
     [46, 48, 50, 52, 57, 65, 90, 97],
     [122, 9, 13, 32, 33, 37, 59, 61],
     [64, 95, 126, 36, 43, 45, 46, 48],
     [53, 54, 57, 65, 90, 97, 122, 33],
     [37, 48, 49, 50, 58, 61, 64, 95],
     [126, 35, 43, 45, 47, 51, 57, 65],
     [90, 97, 122, 33, 37, 45, 46, 47],
     [58, 61, 64, 95, 126, 35, 43, 48],
     [57, 65, 90, 97, 122, 33, 37, 48],
     [49, 50, 58, 61, 64, 95, 126, 35],
     [43, 45, 47, 51, 57, 65, 90, 97],
     [122, 33, 37, 45, 46, 47, 58, 61],
     [64, 95, 126, 35, 43, 48, 57, 65],
     [90, 97, 122, 33, 37, 48, 49, 50],
     [58, 61, 64, 95, 126, 35, 43, 45],
     [47, 51, 57, 65, 90, 97, 122, 9],
     [13, 32, 33, 37, 45, 46, 47, 58]]"

definition smp_trans_keys_41 :: "int list list" where
  "smp_trans_keys_41 =
    [[59, 61, 64, 95, 126, 35, 43, 48],
     [57, 65, 90, 97, 122, 9, 13, 32],
     [33, 37, 45, 46, 47, 58, 59, 61],
     [64, 95, 126, 35, 43, 48, 57, 65],
     [90, 97, 122, 9, 13, 32, 33, 37],
     [45, 46, 47, 58, 59, 61, 64, 95],
     [126, 35, 43, 48, 57, 65, 90, 97],
     [122, 9, 13, 32, 33, 37, 45, 46],
     [47, 53, 58, 59, 61, 64, 95, 126],
     [35, 43, 48, 52, 54, 57, 65, 90],
     [97, 122, 9, 13, 32, 33, 37, 45],
     [46, 47, 58, 59, 61, 64, 95, 126],
     [35, 43, 48, 53, 54, 57, 65, 90],
     [97, 122, 33, 37, 45, 46, 47, 58],
     [61, 64, 95, 126, 35, 43, 48, 57],
     [65, 90, 97, 122, 33, 37, 45, 46],
     [47, 58, 61, 64, 95, 126, 35, 43],
     [48, 57, 65, 90, 97, 122, 33, 37],
     [45, 46, 47, 53, 58, 61, 64, 95],
     [126, 35, 43, 48, 52, 54, 57, 65],
     [90, 97, 122, 33, 37, 45, 46, 47],
     [58, 61, 64, 95, 126, 35, 43, 48],
     [53, 54, 57, 65, 90, 97, 122, 33],
     [37, 45, 46, 47, 58, 61, 64, 95],
     [126, 35, 43, 48, 57, 65, 90, 97],
     [122, 33, 37, 45, 46, 47, 58, 61],
     [64, 95, 126, 35, 43, 48, 57, 65],
     [90, 97, 122, 33, 37, 45, 46, 47],
     [53, 58, 61, 64, 95, 126, 35, 43],
     [48, 52, 54, 57, 65, 90, 97, 122],
     [33, 37, 45, 46, 47, 58, 61, 64],
     [95, 126, 35, 43, 48, 53, 54, 57],
     [65, 90, 97, 122, 33, 37, 45, 46],
     [47, 58, 61, 64, 95, 126, 35, 43],
     [48, 57, 65, 90, 97, 122, 33, 37],
     [45, 46, 47, 58, 61, 64, 95, 126],
     [35, 43, 48, 57, 65, 90, 97, 122],
     [33, 37, 45, 46, 47, 53, 58, 61],
     [64, 95, 126, 35, 43, 48, 52, 54],
     [57, 65, 90, 97, 122, 33, 37, 45],
     [46, 47, 58, 61, 64, 95, 126, 35],
     [43, 48, 53, 54, 57, 65, 90, 97],
     [122, 9, 13, 32, 33, 37, 39, 42],
     [43, 58, 60, 126, 45, 46, 48, 57],
     [65, 90, 95, 96, 97, 122, 9, 13],
     [32, 33, 37, 39, 42, 43, 58, 60],
     [69, 101, 126, 45, 46, 48, 57, 65],
     [90, 95, 96, 97, 122, 9, 13, 32],
     [33, 37, 39, 42, 43, 58, 60, 76],
     [108, 126, 45, 46, 48, 57, 65, 90],
     [95, 96, 97, 122, 9, 13, 32, 33],
     [37, 39, 42, 43, 58, 60, 126, 45],
     [46, 48, 57, 65, 90, 95, 96, 97],
     [122, 35, 42, 43, 40, 41, 45, 46],
     [48, 57, 65, 70, 97, 102, 9, 13],
     [32, 35, 59, 40, 42, 45, 46, 48],
     [57, 65, 70, 97, 102, 35, 42, 40],
     [41, 45, 46, 48, 57, 65, 70, 97],
     [102, 40, 41, 45, 46, 48, 57, 9],
     [13, 32, 59, 40, 41, 45, 46, 48],
     [57, 9, 32, 33, 37, 39, 58, 79],
     [111, 126, 42, 43, 45, 46, 48, 57],
     [65, 90, 95, 122, 9, 32, 33, 37],
     [39, 58, 77, 109, 126, 42, 43, 45],
     [46, 48, 57, 65, 90, 95, 122, 9],
     [32, 33, 37, 39, 58, 126, 42, 43],
     [45, 46, 48, 57, 65, 90, 95, 122],
     [13, 34, 92, 127, -128, -65, -64, -33],
     [-32, -17, -16, -9, -8, -5, -4, -3],
     [-2, 8, 10, 31, -128, -65, -128, -65],
     [-128, -65, -128, -65, -128, -65, 10, 9],
     [13, 32, 33, 37, 39, 67, 70, 73],
     [75, 76, 77, 80, 82, 83, 84, 86],
     [99, 102, 105, 107, 108, 109, 112, 114],
     [115, 116, 118, 126, 42, 43, 45, 46],
     [48, 57, 65, 90, 95, 122, 9, 13],
     [32, 60, 127, -64, -33, -32, -17, -16],
     [-9, -8, -5, -4, -3, -2, 31, 9],
     [13, 32, 60, 127, -64, -33, -32, -17],
     [-16, -9, -8, -5, -4, -3, -2, 31],
     [10, 13, 127, -128, -65, -64, -33, -32],
     [-17, -16, -9, -8, -5, -4, -3, -2],
     [-1, 0, 8, 11, 31, 9, 13, 34],
     [92, -64, -33, -32, -17, -16, -9, -8],
     [-5, -4, -3, 32, 126, -128, -65, -128],
     [-65, -128, -65, -128, -65, -128, -65, 10],
     [9, 32, 9, 13, 32, 60, 9, 13],
     [32, 60, 10, 9, 32, 9, 32, 60],
     [83, 115, 73, 105, 80, 112, 58, 83],
     [115, 33, 37, 48, 49, 50, 59, 61],
     [63, 91, 95, 126, 35, 47, 51, 57],
     [65, 90, 97, 122, 33, 37, 58, 61],
     [64, 95, 126, 35, 59, 63, 90, 97],
     [122, 48, 57, 65, 70, 97, 102, 48],
     [57, 65, 70, 97, 102, 33, 37, 61],
     [64, 95, 126, 36, 46, 48, 57, 65],
     [90, 97, 122, 48, 57, 65, 70, 97],
     [102, 48, 57, 65, 70, 97, 102, 48],
     [49, 50, 91, 51, 57, 65, 90, 97],
     [122, 45, 46, 95, 48, 57, 65, 90],
     [97, 122, 45, 95, 48, 57, 65, 90],
     [97, 122, 45, 46, 95, 48, 57, 65],
     [90, 97, 122, 48, 57, 65, 90, 97],
     [122, 45, 46, 58, 59, 62, 63, 95],
     [48, 57, 65, 90, 97, 122, 45, 95],
     [48, 57, 65, 90, 97, 122, 58, 59],
     [62, 63, 48, 57, 65, 90, 97, 122],
     [48, 54, 49, 53, 55, 57, 48, 49],
     [57, 48, 49, 57, 49, 57, 59, 62],
     [63, 33, 37, 76, 79, 84, 93, 95],
     [108, 111, 116, 126, 36, 43, 45, 58],
     [65, 91, 97, 122, 33, 37, 59, 61],
     [62, 63, 93, 95, 126, 36, 43, 45],
     [58, 65, 91, 97, 122, 48, 57, 65],
     [70, 97, 102, 48, 57, 65, 70, 97],
     [102, 33, 37, 59, 61, 62, 63, 93],
     [95, 126, 36, 43, 45, 58, 65, 91],
     [97, 122, 33, 37, 59, 62, 63, 93],
     [95, 126, 36, 43, 45, 58, 65, 91],
     [97, 122, 48, 57, 65, 70, 97, 102],
     [48, 57, 65, 70, 97, 102, 9, 13],
     [32, 44, 59, 9, 13, 32, 44, 59],
     [10, 9, 32, 9, 32, 44, 59, 9],
     [13, 32, 33, 34, 37, 39, 60, 83],
     [115, 126, 42, 43, 45, 46, 48, 57],
     [65, 90, 95, 122, 10, 9, 32, 9],
     [13, 32, 33, 34, 37, 39, 60, 83],
     [115, 126, 42, 43, 45, 46, 48, 57],
     [65, 90, 95, 122, 9, 13, 32, 33],
     [37, 39, 60, 126, 42, 43, 45, 46],
     [48, 57, 65, 90, 95, 122, 9, 13],
     [32, 33, 37, 39, 60, 126, 42, 43],
     [45, 46, 48, 57, 65, 90, 95, 122],
     [10, 9, 32, 9, 32, 33, 37, 39],
     [60, 126, 42, 43, 45, 46, 48, 57],
     [65, 90, 95, 122, 9, 13, 32, 33],
     [37, 39, 60, 73, 105, 126, 42, 43],
     [45, 46, 48, 57, 65, 90, 95, 122],
     [9, 13, 32, 33, 37, 39, 60, 80],
     [112, 126, 42, 43, 45, 46, 48, 57],
     [65, 90, 95, 122, 9, 13, 32, 33],
     [37, 39, 58, 60, 83, 115, 126, 42],
     [43, 45, 46, 48, 57, 65, 90, 95],
     [122, 33, 37, 48, 49, 50, 61, 91],
     [95, 126, 35, 43, 45, 47, 51, 57],
     [65, 90, 97, 122, 33, 37, 58, 61],
     [64, 95, 126, 35, 43, 45, 57, 65],
     [90, 97, 122, 48, 57, 65, 70, 97],
     [102, 48, 57, 65, 70, 97, 102, 33],
     [37, 61, 64, 95, 126, 36, 43, 45]]"

definition smp_trans_keys_42 :: "int list list" where
  "smp_trans_keys_42 =
    [[46, 48, 57, 65, 90, 97, 122, 48],
     [57, 65, 70, 97, 102, 48, 57, 65],
     [70, 97, 102, 48, 49, 50, 91, 51],
     [57, 65, 90, 97, 122, 45, 46, 95],
     [48, 57, 65, 90, 97, 122, 45, 95],
     [48, 57, 65, 90, 97, 122, 45, 46],
     [95, 48, 57, 65, 90, 97, 122, 48],
     [57, 65, 90, 97, 122, 9, 13, 32],
     [44, 45, 46, 58, 59, 95, 48, 57],
     [65, 90, 97, 122, 10, 9, 13, 32],
     [33, 37, 39, 67, 70, 73, 75, 76],
     [77, 80, 82, 83, 84, 86, 99, 102],
     [105, 107, 108, 109, 112, 114, 115, 116],
     [118, 126, 42, 43, 45, 46, 48, 57],
     [65, 90, 95, 122, 45, 95, 48, 57],
     [65, 90, 97, 122, 9, 13, 32, 44],
     [58, 59, 48, 57, 65, 90, 97, 122],
     [48, 54, 49, 53, 55, 57, 48, 49],
     [57, 48, 49, 57, 49, 57, 9, 13],
     [32, 44, 59, 9, 13, 32, 33, 37],
     [39, 82, 114, 126, 42, 43, 45, 46],
     [48, 57, 65, 90, 95, 122, 10, 9],
     [32, 9, 32, 33, 37, 39, 82, 114],
     [126, 42, 43, 45, 46, 48, 57, 65],
     [90, 95, 122, 9, 13, 32, 33, 37],
     [39, 44, 59, 61, 126, 42, 46, 48],
     [57, 65, 90, 95, 122, 9, 13, 32],
     [44, 59, 61, 10, 9, 32, 9, 32],
     [44, 59, 61, 9, 13, 32, 33, 34],
     [37, 39, 91, 126, 42, 43, 45, 46],
     [48, 57, 65, 90, 95, 122, 10, 9],
     [32, 9, 32, 33, 34, 37, 39, 91],
     [126, 42, 43, 45, 46, 48, 57, 65],
     [90, 95, 122, 9, 13, 32, 33, 37],
     [39, 44, 59, 126, 42, 46, 48, 57],
     [65, 90, 95, 122, 9, 13, 34, 92],
     [-64, -33, -32, -17, -16, -9, -8, -5],
     [-4, -3, 32, 126, -128, -65, -128, -65],
     [-128, -65, -128, -65, -128, -65, 10, 9],
     [32, 9, 13, 32, 44, 59, 0, 9],
     [11, 12, 14, 127, 58, 48, 57, 65],
     [70, 97, 102, 58, 48, 57, 65, 70],
     [97, 102, 58, 48, 57, 65, 70, 97],
     [102, 58, 48, 57, 65, 70, 97, 102],
     [58, 58, 48, 57, 65, 70, 97, 102],
     [58, 48, 57, 65, 70, 97, 102, 58],
     [48, 57, 65, 70, 97, 102, 58, 48],
     [57, 65, 70, 97, 102, 58, 58, 48],
     [57, 65, 70, 97, 102, 58, 48, 57],
     [65, 70, 97, 102, 58, 48, 57, 65],
     [70, 97, 102, 58, 48, 57, 65, 70],
     [97, 102, 58, 58, 48, 57, 65, 70],
     [97, 102, 58, 48, 57, 65, 70, 97],
     [102, 58, 48, 57, 65, 70, 97, 102],
     [58, 48, 57, 65, 70, 97, 102, 58],
     [58, 48, 57, 65, 70, 97, 102, 58],
     [48, 57, 65, 70, 97, 102, 58, 48],
     [57, 65, 70, 97, 102, 58, 48, 57],
     [65, 70, 97, 102, 58, 58, 48, 57],
     [65, 70, 97, 102, 58, 48, 57, 65],
     [70, 97, 102, 58, 48, 57, 65, 70],
     [97, 102, 58, 48, 57, 65, 70, 97],
     [102, 58, 48, 49, 50, 58, 51, 57],
     [65, 70, 97, 102, 46, 58, 48, 57],
     [65, 70, 97, 102, 48, 49, 50, 51],
     [57, 46, 48, 49, 50, 51, 57, 46],
     [48, 49, 50, 51, 57, 93, 93, 48],
     [57, 93, 48, 57, 53, 93, 48, 52],
     [54, 57, 93, 48, 53, 46, 48, 57],
     [46, 48, 57, 46, 53, 48, 52, 54],
     [57, 46, 48, 53, 46, 48, 57, 46],
     [48, 57, 46, 53, 48, 52, 54, 57],
     [46, 48, 53, 58, 48, 57, 65, 70],
     [97, 102, 58, 48, 57, 65, 70, 97],
     [102, 58, 58, 48, 57, 65, 70, 97],
     [102, 93, 48, 57, 65, 70, 97, 102],
     [93, 48, 57, 65, 70, 97, 102, 93],
     [48, 57, 65, 70, 97, 102, 46, 58],
     [48, 57, 65, 70, 97, 102, 46, 58],
     [48, 57, 65, 70, 97, 102, 46, 58],
     [48, 57, 65, 70, 97, 102, 46, 53],
     [58, 48, 52, 54, 57, 65, 70, 97],
     [102, 46, 58, 48, 53, 54, 57, 65],
     [70, 97, 102, 46, 58, 48, 57, 65],
     [70, 97, 102, 46, 58, 48, 57, 65],
     [70, 97, 102, 93, 48, 57, 65, 70],
     [97, 102, 58, 48, 57, 65, 70, 97],
     [102, 48, 49, 50, 93, 51, 57, 65],
     [70, 97, 102, 46, 58, 93, 48, 57],
     [65, 70, 97, 102, 58, 93, 48, 57],
     [65, 70, 97, 102, 58, 93, 48, 57],
     [65, 70, 97, 102, 58, 93, 48, 57],
     [65, 70, 97, 102, 46, 58, 93, 48],
     [57, 65, 70, 97, 102, 46, 58, 93],
     [48, 57, 65, 70, 97, 102, 46, 58],
     [93, 48, 57, 65, 70, 97, 102, 46],
     [53, 58, 93, 48, 52, 54, 57, 65],
     [70, 97, 102, 46, 58, 93, 48, 53],
     [54, 57, 65, 70, 97, 102, 46, 58],
     [93, 48, 57, 65, 70, 97, 102, 46],
     [58, 93, 48, 57, 65, 70, 97, 102],
     [58, 93, 48, 57, 65, 70, 97, 102],
     [48, 49, 50, 93, 51, 57, 65, 70],
     [97, 102, 46, 58, 93, 48, 57, 65],
     [70, 97, 102, 58, 93, 48, 57, 65],
     [70, 97, 102, 58, 93, 48, 57, 65],
     [70, 97, 102, 58, 93, 48, 49, 50],
     [51, 57, 65, 70, 97, 102, 46, 58],
     [93, 48, 57, 65, 70, 97, 102, 46],
     [58, 93, 48, 57, 65, 70, 97, 102],
     [46, 58, 93, 48, 57, 65, 70, 97],
     [102, 46, 53, 58, 93, 48, 52, 54],
     [57, 65, 70, 97, 102, 46, 58, 93],
     [48, 53, 54, 57, 65, 70, 97, 102],
     [46, 58, 93, 48, 57, 65, 70, 97],
     [102, 46, 58, 93, 48, 57, 65, 70],
     [97, 102, 58, 93, 48, 57, 65, 70],
     [97, 102, 48, 49, 50, 93, 51, 57],
     [65, 70, 97, 102, 46, 58, 93, 48],
     [57, 65, 70, 97, 102, 58, 93, 48],
     [57, 65, 70, 97, 102, 58, 93, 48],
     [57, 65, 70, 97, 102, 58, 93, 48],
     [49, 50, 51, 57, 65, 70, 97, 102],
     [46, 58, 93, 48, 57, 65, 70, 97],
     [102, 46, 58, 93, 48, 57, 65, 70],
     [97, 102, 46, 58, 93, 48, 57, 65],
     [70, 97, 102, 46, 53, 58, 93, 48],
     [52, 54, 57, 65, 70, 97, 102, 46],
     [58, 93, 48, 53, 54, 57, 65, 70],
     [97, 102, 46, 58, 93, 48, 57, 65],
     [70, 97, 102, 46, 58, 93, 48, 57],
     [65, 70, 97, 102, 58, 93, 48, 57],
     [65, 70, 97, 102, 48, 49, 50, 93],
     [51, 57, 65, 70, 97, 102, 46, 58],
     [93, 48, 57, 65, 70, 97, 102, 58],
     [93, 48, 57, 65, 70, 97, 102, 58],
     [93, 48, 57, 65, 70, 97, 102, 58],
     [93, 48, 49, 50, 51, 57, 65, 70],
     [97, 102, 46, 58, 93, 48, 57, 65],
     [70, 97, 102, 46, 58, 93, 48, 57],
     [65, 70, 97, 102, 46, 58, 93, 48],
     [57, 65, 70, 97, 102, 46, 53, 58],
     [93, 48, 52, 54, 57, 65, 70, 97],
     [102, 46, 58, 93, 48, 53, 54, 57],
     [65, 70, 97, 102, 46, 58, 93, 48],
     [57, 65, 70, 97, 102, 46, 58, 93],
     [48, 57, 65, 70, 97, 102, 58, 93],
     [48, 57, 65, 70, 97, 102, 48, 49],
     [50, 93, 51, 57, 65, 70, 97, 102],
     [46, 58, 93, 48, 57, 65, 70, 97]]"

definition smp_trans_keys_43 :: "int list list" where
  "smp_trans_keys_43 =
    [[102, 58, 93, 48, 57, 65, 70, 97],
     [102, 58, 93, 48, 57, 65, 70, 97],
     [102, 58, 93, 48, 49, 50, 51, 57],
     [65, 70, 97, 102, 46, 58, 93, 48],
     [57, 65, 70, 97, 102, 46, 58, 93],
     [48, 57, 65, 70, 97, 102, 46, 58],
     [93, 48, 57, 65, 70, 97, 102, 46],
     [53, 58, 93, 48, 52, 54, 57, 65],
     [70, 97, 102, 46, 58, 93, 48, 53],
     [54, 57, 65, 70, 97, 102, 46, 58],
     [93, 48, 57, 65, 70, 97, 102, 46],
     [58, 93, 48, 57, 65, 70, 97, 102],
     [58, 93, 48, 57, 65, 70, 97, 102],
     [58, 48, 49, 50, 93, 51, 57, 65],
     [70, 97, 102, 46, 58, 93, 48, 57],
     [65, 70, 97, 102, 58, 93, 48, 57],
     [65, 70, 97, 102, 58, 93, 48, 57],
     [65, 70, 97, 102, 58, 93, 48, 49],
     [50, 51, 57, 65, 70, 97, 102, 46],
     [58, 93, 48, 57, 65, 70, 97, 102],
     [46, 58, 93, 48, 57, 65, 70, 97],
     [102, 46, 58, 93, 48, 57, 65, 70],
     [97, 102, 46, 53, 58, 93, 48, 52],
     [54, 57, 65, 70, 97, 102, 46, 58],
     [93, 48, 53, 54, 57, 65, 70, 97],
     [102, 46, 58, 93, 48, 57, 65, 70],
     [97, 102, 46, 58, 93, 48, 57, 65],
     [70, 97, 102, 58, 93, 48, 57, 65],
     [70, 97, 102, 10, 9, 13, 32, 33],
     [37, 39, 67, 70, 73, 75, 76, 77],
     [80, 82, 83, 84, 86, 99, 102, 105],
     [107, 108, 109, 112, 114, 115, 116, 118],
     [126, 42, 43, 45, 46, 48, 57, 65],
     [90, 95, 122, 9, 13, 32, 33, 37],
     [39, 44, 59, 61, 69, 101, 126, 42],
     [46, 48, 57, 65, 90, 95, 122, 9],
     [13, 32, 33, 37, 39, 44, 59, 61],
     [71, 103, 126, 42, 46, 48, 57, 65],
     [90, 95, 122, 9, 13, 32, 33, 37],
     [39, 44, 45, 59, 61, 126, 42, 46],
     [48, 57, 65, 90, 95, 122, 9, 13],
     [32, 33, 37, 39, 44, 59, 61, 73],
     [105, 126, 42, 46, 48, 57, 65, 90],
     [95, 122, 9, 13, 32, 33, 37, 39],
     [44, 59, 61, 68, 100, 126, 42, 46],
     [48, 57, 65, 90, 95, 122, 9, 13],
     [32, 33, 37, 39, 44, 59, 61, 126],
     [42, 46, 48, 57, 65, 90, 95, 122],
     [9, 13, 32, 44, 59, 48, 57, 9],
     [13, 32, 44, 59, 48, 57, 9, 13],
     [32, 44, 59, 48, 57, 9, 13, 32],
     [44, 59, 48, 57, 9, 13, 32, 44],
     [53, 59, 48, 52, 54, 57, 9, 13],
     [32, 44, 53, 59, 48, 52, 54, 57],
     [9, 13, 32, 44, 51, 59, 48, 50],
     [52, 57, 9, 13, 32, 44, 59, 48],
     [53, 48, 49, 50, 51, 57, 65, 90],
     [97, 122, 45, 46, 95, 48, 57, 65],
     [90, 97, 122, 48, 49, 50, 51, 57],
     [65, 90, 97, 122, 45, 46, 95, 48],
     [57, 65, 90, 97, 122, 48, 49, 50],
     [51, 57, 65, 90, 97, 122, 9, 13],
     [32, 44, 45, 46, 58, 59, 95, 48],
     [57, 65, 90, 97, 122, 9, 13, 32],
     [44, 45, 46, 58, 59, 95, 48, 57],
     [65, 90, 97, 122, 9, 13, 32, 44],
     [45, 46, 58, 59, 95, 48, 57, 65],
     [90, 97, 122, 9, 13, 32, 44, 45],
     [46, 53, 58, 59, 95, 48, 52, 54],
     [57, 65, 90, 97, 122, 9, 13, 32],
     [44, 45, 46, 58, 59, 95, 48, 53],
     [54, 57, 65, 90, 97, 122, 45, 46],
     [95, 48, 57, 65, 90, 97, 122, 45],
     [46, 95, 48, 57, 65, 90, 97, 122],
     [45, 46, 53, 95, 48, 52, 54, 57],
     [65, 90, 97, 122, 45, 46, 95, 48],
     [53, 54, 57, 65, 90, 97, 122, 45],
     [46, 95, 48, 57, 65, 90, 97, 122],
     [45, 46, 95, 48, 57, 65, 90, 97],
     [122, 45, 46, 53, 95, 48, 52, 54],
     [57, 65, 90, 97, 122, 45, 46, 95],
     [48, 53, 54, 57, 65, 90, 97, 122],
     [45, 46, 95, 48, 57, 65, 90, 97],
     [122, 45, 46, 95, 48, 57, 65, 90],
     [97, 122, 45, 46, 53, 95, 48, 52],
     [54, 57, 65, 90, 97, 122, 45, 46],
     [95, 48, 53, 54, 57, 65, 90, 97],
     [122, 58, 48, 57, 65, 70, 97, 102],
     [58, 48, 57, 65, 70, 97, 102, 58],
     [48, 57, 65, 70, 97, 102, 58, 48],
     [57, 65, 70, 97, 102, 58, 58, 48],
     [57, 65, 70, 97, 102, 58, 48, 57],
     [65, 70, 97, 102, 58, 48, 57, 65],
     [70, 97, 102, 58, 48, 57, 65, 70],
     [97, 102, 58, 58, 48, 57, 65, 70],
     [97, 102, 58, 48, 57, 65, 70, 97],
     [102, 58, 48, 57, 65, 70, 97, 102],
     [58, 48, 57, 65, 70, 97, 102, 58],
     [58, 48, 57, 65, 70, 97, 102, 58],
     [48, 57, 65, 70, 97, 102, 58, 48],
     [57, 65, 70, 97, 102, 58, 48, 57],
     [65, 70, 97, 102, 58, 58, 48, 57],
     [65, 70, 97, 102, 58, 48, 57, 65],
     [70, 97, 102, 58, 48, 57, 65, 70],
     [97, 102, 58, 48, 57, 65, 70, 97],
     [102, 58, 58, 48, 57, 65, 70, 97],
     [102, 58, 48, 57, 65, 70, 97, 102],
     [58, 48, 57, 65, 70, 97, 102, 58],
     [48, 57, 65, 70, 97, 102, 58, 48],
     [49, 50, 58, 51, 57, 65, 70, 97],
     [102, 46, 58, 48, 57, 65, 70, 97],
     [102, 48, 49, 50, 51, 57, 46, 48],
     [49, 50, 51, 57, 46, 48, 49, 50],
     [51, 57, 93, 9, 13, 32, 44, 58],
     [59, 93, 48, 57, 93, 48, 57, 53],
     [93, 48, 52, 54, 57, 93, 48, 53],
     [46, 48, 57, 46, 48, 57, 46, 53],
     [48, 52, 54, 57, 46, 48, 53, 46],
     [48, 57, 46, 48, 57, 46, 53, 48],
     [52, 54, 57, 46, 48, 53, 58, 48],
     [57, 65, 70, 97, 102, 58, 48, 57],
     [65, 70, 97, 102, 58, 58, 48, 57],
     [65, 70, 97, 102, 93, 48, 57, 65],
     [70, 97, 102, 93, 48, 57, 65, 70],
     [97, 102, 93, 48, 57, 65, 70, 97],
     [102, 46, 58, 48, 57, 65, 70, 97],
     [102, 46, 58, 48, 57, 65, 70, 97],
     [102, 46, 58, 48, 57, 65, 70, 97],
     [102, 46, 53, 58, 48, 52, 54, 57],
     [65, 70, 97, 102, 46, 58, 48, 53],
     [54, 57, 65, 70, 97, 102, 46, 58],
     [48, 57, 65, 70, 97, 102, 46, 58],
     [48, 57, 65, 70, 97, 102, 93, 48],
     [57, 65, 70, 97, 102, 58, 48, 57],
     [65, 70, 97, 102, 48, 49, 50, 93],
     [51, 57, 65, 70, 97, 102, 46, 58],
     [93, 48, 57, 65, 70, 97, 102, 58],
     [93, 48, 57, 65, 70, 97, 102, 58],
     [93, 48, 57, 65, 70, 97, 102, 58],
     [93, 48, 57, 65, 70, 97, 102, 46],
     [58, 93, 48, 57, 65, 70, 97, 102],
     [46, 58, 93, 48, 57, 65, 70, 97],
     [102, 46, 58, 93, 48, 57, 65, 70],
     [97, 102, 46, 53, 58, 93, 48, 52],
     [54, 57, 65, 70, 97, 102, 46, 58],
     [93, 48, 53, 54, 57, 65, 70, 97],
     [102, 46, 58, 93, 48, 57, 65, 70],
     [97, 102, 46, 58, 93, 48, 57, 65],
     [70, 97, 102, 58, 93, 48, 57, 65],
     [70, 97, 102, 48, 49, 50, 93, 51]]"

definition smp_trans_keys_44 :: "int list list" where
  "smp_trans_keys_44 =
    [[57, 65, 70, 97, 102, 46, 58, 93],
     [48, 57, 65, 70, 97, 102, 58, 93],
     [48, 57, 65, 70, 97, 102, 58, 93],
     [48, 57, 65, 70, 97, 102, 58, 93],
     [48, 49, 50, 51, 57, 65, 70, 97],
     [102, 46, 58, 93, 48, 57, 65, 70],
     [97, 102, 46, 58, 93, 48, 57, 65],
     [70, 97, 102, 46, 58, 93, 48, 57],
     [65, 70, 97, 102, 46, 53, 58, 93],
     [48, 52, 54, 57, 65, 70, 97, 102],
     [46, 58, 93, 48, 53, 54, 57, 65],
     [70, 97, 102, 46, 58, 93, 48, 57],
     [65, 70, 97, 102, 46, 58, 93, 48],
     [57, 65, 70, 97, 102, 58, 93, 48],
     [57, 65, 70, 97, 102, 48, 49, 50],
     [93, 51, 57, 65, 70, 97, 102, 46],
     [58, 93, 48, 57, 65, 70, 97, 102],
     [58, 93, 48, 57, 65, 70, 97, 102],
     [58, 93, 48, 57, 65, 70, 97, 102],
     [58, 93, 48, 49, 50, 51, 57, 65],
     [70, 97, 102, 46, 58, 93, 48, 57],
     [65, 70, 97, 102, 46, 58, 93, 48],
     [57, 65, 70, 97, 102, 46, 58, 93],
     [48, 57, 65, 70, 97, 102, 46, 53],
     [58, 93, 48, 52, 54, 57, 65, 70],
     [97, 102, 46, 58, 93, 48, 53, 54],
     [57, 65, 70, 97, 102, 46, 58, 93],
     [48, 57, 65, 70, 97, 102, 46, 58],
     [93, 48, 57, 65, 70, 97, 102, 58],
     [93, 48, 57, 65, 70, 97, 102, 48],
     [49, 50, 93, 51, 57, 65, 70, 97],
     [102, 46, 58, 93, 48, 57, 65, 70],
     [97, 102, 58, 93, 48, 57, 65, 70],
     [97, 102, 58, 93, 48, 57, 65, 70],
     [97, 102, 58, 93, 48, 49, 50, 51],
     [57, 65, 70, 97, 102, 46, 58, 93],
     [48, 57, 65, 70, 97, 102, 46, 58],
     [93, 48, 57, 65, 70, 97, 102, 46],
     [58, 93, 48, 57, 65, 70, 97, 102],
     [46, 53, 58, 93, 48, 52, 54, 57],
     [65, 70, 97, 102, 46, 58, 93, 48],
     [53, 54, 57, 65, 70, 97, 102, 46],
     [58, 93, 48, 57, 65, 70, 97, 102],
     [46, 58, 93, 48, 57, 65, 70, 97],
     [102, 58, 93, 48, 57, 65, 70, 97],
     [102, 48, 49, 50, 93, 51, 57, 65],
     [70, 97, 102, 46, 58, 93, 48, 57],
     [65, 70, 97, 102, 58, 93, 48, 57],
     [65, 70, 97, 102, 58, 93, 48, 57],
     [65, 70, 97, 102, 58, 93, 48, 49],
     [50, 51, 57, 65, 70, 97, 102, 46],
     [58, 93, 48, 57, 65, 70, 97, 102],
     [46, 58, 93, 48, 57, 65, 70, 97],
     [102, 46, 58, 93, 48, 57, 65, 70],
     [97, 102, 46, 53, 58, 93, 48, 52],
     [54, 57, 65, 70, 97, 102, 46, 58],
     [93, 48, 53, 54, 57, 65, 70, 97],
     [102, 46, 58, 93, 48, 57, 65, 70],
     [97, 102, 46, 58, 93, 48, 57, 65],
     [70, 97, 102, 58, 93, 48, 57, 65],
     [70, 97, 102, 58, 48, 49, 50, 93],
     [51, 57, 65, 70, 97, 102, 46, 58],
     [93, 48, 57, 65, 70, 97, 102, 58],
     [93, 48, 57, 65, 70, 97, 102, 58],
     [93, 48, 57, 65, 70, 97, 102, 58],
     [93, 48, 49, 50, 51, 57, 65, 70],
     [97, 102, 46, 58, 93, 48, 57, 65],
     [70, 97, 102, 46, 58, 93, 48, 57],
     [65, 70, 97, 102, 46, 58, 93, 48],
     [57, 65, 70, 97, 102, 46, 53, 58],
     [93, 48, 52, 54, 57, 65, 70, 97],
     [102, 46, 58, 93, 48, 53, 54, 57],
     [65, 70, 97, 102, 46, 58, 93, 48],
     [57, 65, 70, 97, 102, 46, 58, 93],
     [48, 57, 65, 70, 97, 102, 58, 93],
     [48, 57, 65, 70, 97, 102, 33, 37],
     [45, 46, 47, 58, 61, 64, 95, 126],
     [35, 43, 48, 57, 65, 90, 97, 122],
     [33, 37, 45, 58, 61, 64, 95, 126],
     [35, 43, 46, 47, 48, 57, 65, 90],
     [97, 122, 33, 37, 45, 46, 47, 58],
     [61, 64, 95, 126, 35, 43, 48, 57],
     [65, 90, 97, 122, 33, 37, 58, 61],
     [64, 95, 126, 35, 43, 45, 47, 48],
     [57, 65, 90, 97, 122, 9, 13, 32],
     [33, 37, 44, 45, 46, 58, 59, 61],
     [64, 95, 126, 35, 47, 48, 57, 65],
     [90, 97, 122, 33, 37, 45, 58, 61],
     [64, 95, 126, 35, 43, 46, 47, 48],
     [57, 65, 90, 97, 122, 9, 13, 32],
     [33, 37, 44, 58, 59, 61, 64, 95],
     [126, 35, 47, 48, 57, 65, 90, 97],
     [122, 33, 37, 48, 54, 61, 64, 95],
     [126, 36, 43, 45, 46, 49, 53, 55],
     [57, 65, 90, 97, 122, 33, 37, 48],
     [61, 64, 95, 126, 36, 43, 45, 46],
     [49, 57, 65, 90, 97, 122, 33, 37],
     [48, 61, 64, 95, 126, 36, 43, 45],
     [46, 49, 57, 65, 90, 97, 122, 33],
     [37, 48, 61, 64, 95, 126, 36, 43],
     [45, 46, 49, 57, 65, 90, 97, 122],
     [9, 13, 32, 33, 37, 44, 59, 61],
     [64, 95, 126, 36, 46, 48, 57, 65],
     [90, 97, 122, 9, 13, 32, 33, 37],
     [44, 59, 61, 64, 95, 126, 36, 46],
     [48, 57, 65, 90, 97, 122, 9, 13],
     [32, 33, 37, 44, 59, 61, 64, 95],
     [126, 36, 46, 48, 57, 65, 90, 97],
     [122, 9, 13, 32, 33, 37, 44, 59],
     [61, 64, 95, 126, 36, 46, 48, 57],
     [65, 90, 97, 122, 9, 13, 32, 33],
     [37, 44, 59, 61, 64, 95, 126, 36],
     [46, 48, 57, 65, 90, 97, 122, 9],
     [13, 32, 33, 37, 44, 53, 59, 61],
     [64, 95, 126, 36, 46, 48, 52, 54],
     [57, 65, 90, 97, 122, 9, 13, 32],
     [33, 37, 44, 53, 59, 61, 64, 95],
     [126, 36, 46, 48, 52, 54, 57, 65],
     [90, 97, 122, 9, 13, 32, 33, 37],
     [44, 51, 59, 61, 64, 95, 126, 36],
     [46, 48, 50, 52, 57, 65, 90, 97],
     [122, 9, 13, 32, 33, 37, 44, 59],
     [61, 64, 95, 126, 36, 46, 48, 53],
     [54, 57, 65, 90, 97, 122, 33, 37],
     [48, 49, 50, 58, 61, 64, 95, 126],
     [35, 43, 45, 47, 51, 57, 65, 90],
     [97, 122, 33, 37, 45, 46, 47, 58],
     [61, 64, 95, 126, 35, 43, 48, 57],
     [65, 90, 97, 122, 33, 37, 48, 49],
     [50, 58, 61, 64, 95, 126, 35, 43],
     [45, 47, 51, 57, 65, 90, 97, 122],
     [33, 37, 45, 46, 47, 58, 61, 64],
     [95, 126, 35, 43, 48, 57, 65, 90],
     [97, 122, 33, 37, 48, 49, 50, 58],
     [61, 64, 95, 126, 35, 43, 45, 47],
     [51, 57, 65, 90, 97, 122, 9, 13],
     [32, 33, 37, 44, 45, 46, 58, 59],
     [61, 64, 95, 126, 35, 47, 48, 57],
     [65, 90, 97, 122, 9, 13, 32, 33],
     [37, 44, 45, 46, 58, 59, 61, 64],
     [95, 126, 35, 47, 48, 57, 65, 90],
     [97, 122, 9, 13, 32, 33, 37, 44],
     [45, 46, 58, 59, 61, 64, 95, 126],
     [35, 47, 48, 57, 65, 90, 97, 122],
     [9, 13, 32, 33, 37, 44, 45, 46],
     [53, 58, 59, 61, 64, 95, 126, 35],
     [47, 48, 52, 54, 57, 65, 90, 97],
     [122, 9, 13, 32, 33, 37, 44, 45],
     [46, 58, 59, 61, 64, 95, 126, 35],
     [47, 48, 53, 54, 57, 65, 90, 97]]"

definition smp_trans_keys_45 :: "int list list" where
  "smp_trans_keys_45 =
    [[122, 33, 37, 45, 46, 47, 58, 61],
     [64, 95, 126, 35, 43, 48, 57, 65],
     [90, 97, 122, 33, 37, 45, 46, 47],
     [58, 61, 64, 95, 126, 35, 43, 48],
     [57, 65, 90, 97, 122, 33, 37, 45],
     [46, 47, 53, 58, 61, 64, 95, 126],
     [35, 43, 48, 52, 54, 57, 65, 90],
     [97, 122, 33, 37, 45, 46, 47, 58],
     [61, 64, 95, 126, 35, 43, 48, 53],
     [54, 57, 65, 90, 97, 122, 33, 37],
     [45, 46, 47, 58, 61, 64, 95, 126],
     [35, 43, 48, 57, 65, 90, 97, 122],
     [33, 37, 45, 46, 47, 58, 61, 64],
     [95, 126, 35, 43, 48, 57, 65, 90],
     [97, 122, 33, 37, 45, 46, 47, 53],
     [58, 61, 64, 95, 126, 35, 43, 48],
     [52, 54, 57, 65, 90, 97, 122, 33],
     [37, 45, 46, 47, 58, 61, 64, 95],
     [126, 35, 43, 48, 53, 54, 57, 65],
     [90, 97, 122, 33, 37, 45, 46, 47],
     [58, 61, 64, 95, 126, 35, 43, 48],
     [57, 65, 90, 97, 122, 33, 37, 45],
     [46, 47, 58, 61, 64, 95, 126, 35],
     [43, 48, 57, 65, 90, 97, 122, 33],
     [37, 45, 46, 47, 53, 58, 61, 64],
     [95, 126, 35, 43, 48, 52, 54, 57],
     [65, 90, 97, 122, 33, 37, 45, 46],
     [47, 58, 61, 64, 95, 126, 35, 43],
     [48, 53, 54, 57, 65, 90, 97, 122],
     [9, 13, 32, 33, 37, 39, 58, 60],
     [126, 42, 43, 45, 46, 48, 57, 65],
     [90, 95, 122, 33, 36, 37, 63, 93],
     [95, 126, 39, 43, 45, 58, 65, 91],
     [97, 122, 33, 36, 37, 61, 63, 93],
     [95, 126, 39, 43, 45, 58, 65, 91],
     [97, 122, 48, 57, 65, 70, 97, 102],
     [48, 57, 65, 70, 97, 102, 33, 37],
     [38, 62, 63, 93, 95, 126, 36, 43],
     [45, 58, 65, 91, 97, 122, 48, 57],
     [65, 70, 97, 102, 48, 57, 65, 70],
     [97, 102, 33, 37, 93, 95, 126, 36],
     [43, 45, 58, 65, 91, 97, 122, 33],
     [37, 59, 61, 62, 63, 82, 93, 95],
     [114, 126, 36, 43, 45, 58, 65, 91],
     [97, 122, 33, 37, 59, 61, 62, 63],
     [93, 95, 126, 36, 43, 45, 58, 65],
     [91, 97, 122, 33, 37, 39, 47, 58],
     [59, 61, 62, 63, 91, 93, 96, 126],
     [36, 41, 42, 43, 45, 57, 65, 90],
     [95, 122, 33, 37, 39, 47, 58, 59],
     [62, 63, 91, 93, 96, 126, 36, 41],
     [42, 43, 45, 57, 65, 90, 95, 122],
     [33, 37, 39, 59, 62, 63, 126, 42],
     [43, 45, 46, 48, 57, 65, 70, 71],
     [90, 95, 96, 97, 102, 103, 122, 33],
     [37, 39, 59, 62, 63, 126, 42, 43],
     [45, 46, 48, 57, 65, 90, 95, 122],
     [33, 37, 39, 59, 62, 63, 126, 42],
     [43, 45, 46, 48, 57, 65, 70, 71],
     [90, 95, 96, 97, 102, 103, 122, 33],
     [37, 59, 61, 62, 63, 66, 86, 93],
     [95, 98, 118, 126, 36, 43, 45, 58],
     [65, 91, 97, 122, 33, 37, 59, 61],
     [62, 63, 93, 95, 126, 36, 43, 45],
     [58, 65, 91, 97, 122, 33, 37, 59],
     [61, 62, 63, 73, 93, 95, 105, 126],
     [36, 43, 45, 58, 65, 91, 97, 122],
     [33, 37, 59, 61, 62, 63, 68, 93],
     [95, 100, 126, 36, 43, 45, 58, 65],
     [91, 97, 122, 33, 37, 59, 61, 62],
     [63, 93, 95, 126, 36, 43, 45, 58],
     [65, 91, 97, 122, 33, 37, 39, 47],
     [58, 59, 61, 62, 63, 91, 93, 96],
     [126, 36, 41, 42, 43, 45, 57, 65],
     [90, 95, 122, 33, 37, 39, 47, 58],
     [59, 62, 63, 91, 93, 96, 126, 36],
     [41, 42, 43, 45, 57, 65, 90, 95],
     [122, 33, 37, 39, 59, 62, 63, 126],
     [42, 43, 45, 46, 48, 57, 65, 70],
     [71, 90, 95, 96, 97, 102, 103, 122],
     [33, 37, 39, 59, 62, 63, 126, 42],
     [43, 45, 46, 48, 57, 65, 90, 95],
     [122, 33, 37, 39, 59, 62, 63, 126],
     [42, 43, 45, 46, 48, 57, 65, 70],
     [71, 90, 95, 96, 97, 102, 103, 122],
     [33, 37, 59, 61, 62, 63, 82, 93],
     [95, 114, 126, 36, 43, 45, 58, 65],
     [91, 97, 122, 33, 37, 59, 61, 62],
     [63, 65, 93, 95, 97, 126, 36, 43],
     [45, 58, 66, 91, 98, 122, 33, 37],
     [59, 61, 62, 63, 78, 93, 95, 110],
     [126, 36, 43, 45, 58, 65, 91, 97],
     [122, 33, 37, 59, 61, 62, 63, 83],
     [93, 95, 115, 126, 36, 43, 45, 58],
     [65, 91, 97, 122, 33, 37, 59, 61],
     [62, 63, 80, 93, 95, 112, 126, 36],
     [43, 45, 58, 65, 91, 97, 122, 33],
     [37, 59, 61, 62, 63, 79, 93, 95],
     [111, 126, 36, 43, 45, 58, 65, 91],
     [97, 122, 33, 37, 59, 61, 62, 63],
     [82, 93, 95, 114, 126, 36, 43, 45],
     [58, 65, 91, 97, 122, 33, 37, 59],
     [61, 62, 63, 84, 93, 95, 116, 126],
     [36, 43, 45, 58, 65, 91, 97, 122],
     [33, 37, 59, 61, 62, 63, 93, 95],
     [126, 36, 43, 45, 58, 65, 91, 97],
     [122, 33, 37, 39, 47, 58, 59, 61],
     [62, 63, 83, 84, 85, 87, 91, 93],
     [96, 115, 116, 117, 119, 126, 36, 41],
     [42, 43, 45, 57, 65, 90, 95, 122],
     [33, 37, 39, 47, 58, 59, 62, 63],
     [91, 93, 96, 126, 36, 41, 42, 43],
     [45, 57, 65, 90, 95, 122, 33, 37],
     [39, 59, 62, 63, 126, 42, 43, 45],
     [46, 48, 57, 65, 70, 71, 90, 95],
     [96, 97, 102, 103, 122, 33, 37, 39],
     [59, 62, 63, 126, 42, 43, 45, 46],
     [48, 57, 65, 90, 95, 122, 33, 37],
     [39, 59, 62, 63, 126, 42, 43, 45],
     [46, 48, 57, 65, 70, 71, 90, 95],
     [96, 97, 102, 103, 122, 33, 37, 39],
     [47, 58, 59, 62, 63, 67, 91, 93],
     [96, 99, 126, 36, 41, 42, 43, 45],
     [57, 65, 90, 95, 122, 33, 37, 39],
     [47, 58, 59, 62, 63, 84, 91, 93],
     [96, 116, 126, 36, 41, 42, 43, 45],
     [57, 65, 90, 95, 122, 33, 37, 39],
     [47, 58, 59, 62, 63, 80, 91, 93],
     [96, 112, 126, 36, 41, 42, 43, 45],
     [57, 65, 90, 95, 122, 33, 37, 39],
     [47, 58, 59, 62, 63, 91, 93, 96],
     [126, 36, 41, 42, 43, 45, 57, 65],
     [90, 95, 122, 33, 37, 39, 47, 58],
     [59, 62, 63, 67, 76, 91, 93, 96],
     [99, 108, 126, 36, 41, 42, 43, 45],
     [57, 65, 90, 95, 122, 33, 37, 39],
     [47, 58, 59, 62, 63, 80, 91, 93],
     [96, 112, 126, 36, 41, 42, 43, 45],
     [57, 65, 90, 95, 122, 33, 37, 39],
     [47, 58, 59, 62, 63, 91, 93, 96],
     [126, 36, 41, 42, 43, 45, 57, 65],
     [90, 95, 122, 33, 37, 39, 47, 58],
     [59, 62, 63, 83, 91, 93, 96, 115],
     [126, 36, 41, 42, 43, 45, 57, 65],
     [90, 95, 122, 33, 37, 39, 47, 58],
     [59, 62, 63, 91, 93, 96, 126, 36],
     [41, 42, 43, 45, 57, 65, 90, 95],
     [122, 33, 37, 39, 47, 58, 59, 62],
     [63, 68, 91, 93, 96, 100, 126, 36],
     [41, 42, 43, 45, 57, 65, 90, 95]]"

definition smp_trans_keys_46 :: "int list list" where
  "smp_trans_keys_46 =
    [[122, 33, 37, 39, 47, 58, 59, 62],
     [63, 80, 91, 93, 96, 112, 126, 36],
     [41, 42, 43, 45, 57, 65, 90, 95],
     [122, 33, 37, 39, 47, 58, 59, 62],
     [63, 91, 93, 96, 126, 36, 41, 42],
     [43, 45, 57, 65, 90, 95, 122, 33],
     [37, 39, 47, 58, 59, 62, 63, 83],
     [91, 93, 96, 115, 126, 36, 41, 42],
     [43, 45, 57, 65, 90, 95, 122, 33],
     [37, 39, 47, 58, 59, 62, 63, 83],
     [91, 93, 96, 115, 126, 36, 41, 42],
     [43, 45, 57, 65, 90, 95, 122, 33],
     [37, 39, 47, 58, 59, 62, 63, 91],
     [93, 96, 126, 36, 41, 42, 43, 45],
     [57, 65, 90, 95, 122, 59, 62, 63],
     [48, 57, 59, 62, 63, 48, 57, 59],
     [62, 63, 48, 57, 59, 62, 63, 48],
     [57, 53, 59, 62, 63, 48, 52, 54],
     [57, 53, 59, 62, 63, 48, 52, 54],
     [57, 51, 59, 62, 63, 48, 50, 52],
     [57, 59, 62, 63, 48, 53, 48, 49],
     [50, 51, 57, 65, 90, 97, 122, 45],
     [46, 95, 48, 57, 65, 90, 97, 122],
     [48, 49, 50, 51, 57, 65, 90, 97],
     [122, 45, 46, 95, 48, 57, 65, 90],
     [97, 122, 48, 49, 50, 51, 57, 65],
     [90, 97, 122, 45, 46, 58, 59, 62],
     [63, 95, 48, 57, 65, 90, 97, 122],
     [45, 46, 58, 59, 62, 63, 95, 48],
     [57, 65, 90, 97, 122, 45, 46, 58],
     [59, 62, 63, 95, 48, 57, 65, 90],
     [97, 122, 45, 46, 53, 58, 59, 62],
     [63, 95, 48, 52, 54, 57, 65, 90],
     [97, 122, 45, 46, 58, 59, 62, 63],
     [95, 48, 53, 54, 57, 65, 90, 97],
     [122, 45, 46, 95, 48, 57, 65, 90],
     [97, 122, 45, 46, 95, 48, 57, 65],
     [90, 97, 122, 45, 46, 53, 95, 48],
     [52, 54, 57, 65, 90, 97, 122, 45],
     [46, 95, 48, 53, 54, 57, 65, 90],
     [97, 122, 45, 46, 95, 48, 57, 65],
     [90, 97, 122, 45, 46, 95, 48, 57],
     [65, 90, 97, 122, 45, 46, 53, 95],
     [48, 52, 54, 57, 65, 90, 97, 122],
     [45, 46, 95, 48, 53, 54, 57, 65],
     [90, 97, 122, 45, 46, 95, 48, 57],
     [65, 90, 97, 122, 45, 46, 95, 48],
     [57, 65, 90, 97, 122, 45, 46, 53],
     [95, 48, 52, 54, 57, 65, 90, 97],
     [122, 45, 46, 95, 48, 53, 54, 57],
     [65, 90, 97, 122, 58, 48, 57, 65],
     [70, 97, 102, 58, 48, 57, 65, 70],
     [97, 102, 58, 48, 57, 65, 70, 97],
     [102, 58, 48, 57, 65, 70, 97, 102],
     [58, 58, 48, 57, 65, 70, 97, 102],
     [58, 48, 57, 65, 70, 97, 102, 58],
     [48, 57, 65, 70, 97, 102, 58, 48],
     [57, 65, 70, 97, 102, 58, 58, 48],
     [57, 65, 70, 97, 102, 58, 48, 57],
     [65, 70, 97, 102, 58, 48, 57, 65],
     [70, 97, 102, 58, 48, 57, 65, 70],
     [97, 102, 58, 58, 48, 57, 65, 70],
     [97, 102, 58, 48, 57, 65, 70, 97],
     [102, 58, 48, 57, 65, 70, 97, 102],
     [58, 48, 57, 65, 70, 97, 102, 58],
     [58, 48, 57, 65, 70, 97, 102, 58],
     [48, 57, 65, 70, 97, 102, 58, 48],
     [57, 65, 70, 97, 102, 58, 48, 57],
     [65, 70, 97, 102, 58, 58, 48, 57],
     [65, 70, 97, 102, 58, 48, 57, 65],
     [70, 97, 102, 58, 48, 57, 65, 70],
     [97, 102, 58, 48, 57, 65, 70, 97],
     [102, 58, 48, 49, 50, 58, 51, 57],
     [65, 70, 97, 102, 46, 58, 48, 57],
     [65, 70, 97, 102, 48, 49, 50, 51],
     [57, 46, 48, 49, 50, 51, 57, 46],
     [48, 49, 50, 51, 57, 93, 58, 59],
     [62, 63, 93, 48, 57, 93, 48, 57],
     [53, 93, 48, 52, 54, 57, 93, 48],
     [53, 46, 48, 57, 46, 48, 57, 46],
     [53, 48, 52, 54, 57, 46, 48, 53],
     [46, 48, 57, 46, 48, 57, 46, 53],
     [48, 52, 54, 57, 46, 48, 53, 58],
     [48, 57, 65, 70, 97, 102, 58, 48],
     [57, 65, 70, 97, 102, 58, 58, 48],
     [57, 65, 70, 97, 102, 93, 48, 57],
     [65, 70, 97, 102, 93, 48, 57, 65],
     [70, 97, 102, 93, 48, 57, 65, 70],
     [97, 102, 46, 58, 48, 57, 65, 70],
     [97, 102, 46, 58, 48, 57, 65, 70],
     [97, 102, 46, 58, 48, 57, 65, 70],
     [97, 102, 46, 53, 58, 48, 52, 54],
     [57, 65, 70, 97, 102, 46, 58, 48],
     [53, 54, 57, 65, 70, 97, 102, 46],
     [58, 48, 57, 65, 70, 97, 102, 46],
     [58, 48, 57, 65, 70, 97, 102, 93],
     [48, 57, 65, 70, 97, 102, 58, 48],
     [57, 65, 70, 97, 102, 48, 49, 50],
     [93, 51, 57, 65, 70, 97, 102, 46],
     [58, 93, 48, 57, 65, 70, 97, 102],
     [58, 93, 48, 57, 65, 70, 97, 102],
     [58, 93, 48, 57, 65, 70, 97, 102],
     [58, 93, 48, 57, 65, 70, 97, 102],
     [46, 58, 93, 48, 57, 65, 70, 97],
     [102, 46, 58, 93, 48, 57, 65, 70],
     [97, 102, 46, 58, 93, 48, 57, 65],
     [70, 97, 102, 46, 53, 58, 93, 48],
     [52, 54, 57, 65, 70, 97, 102, 46],
     [58, 93, 48, 53, 54, 57, 65, 70],
     [97, 102, 46, 58, 93, 48, 57, 65],
     [70, 97, 102, 46, 58, 93, 48, 57],
     [65, 70, 97, 102, 58, 93, 48, 57],
     [65, 70, 97, 102, 48, 49, 50, 93],
     [51, 57, 65, 70, 97, 102, 46, 58],
     [93, 48, 57, 65, 70, 97, 102, 58],
     [93, 48, 57, 65, 70, 97, 102, 58],
     [93, 48, 57, 65, 70, 97, 102, 58],
     [93, 48, 49, 50, 51, 57, 65, 70],
     [97, 102, 46, 58, 93, 48, 57, 65],
     [70, 97, 102, 46, 58, 93, 48, 57],
     [65, 70, 97, 102, 46, 58, 93, 48],
     [57, 65, 70, 97, 102, 46, 53, 58],
     [93, 48, 52, 54, 57, 65, 70, 97],
     [102, 46, 58, 93, 48, 53, 54, 57],
     [65, 70, 97, 102, 46, 58, 93, 48],
     [57, 65, 70, 97, 102, 46, 58, 93],
     [48, 57, 65, 70, 97, 102, 58, 93],
     [48, 57, 65, 70, 97, 102, 48, 49],
     [50, 93, 51, 57, 65, 70, 97, 102],
     [46, 58, 93, 48, 57, 65, 70, 97],
     [102, 58, 93, 48, 57, 65, 70, 97],
     [102, 58, 93, 48, 57, 65, 70, 97],
     [102, 58, 93, 48, 49, 50, 51, 57],
     [65, 70, 97, 102, 46, 58, 93, 48],
     [57, 65, 70, 97, 102, 46, 58, 93],
     [48, 57, 65, 70, 97, 102, 46, 58],
     [93, 48, 57, 65, 70, 97, 102, 46],
     [53, 58, 93, 48, 52, 54, 57, 65],
     [70, 97, 102, 46, 58, 93, 48, 53],
     [54, 57, 65, 70, 97, 102, 46, 58],
     [93, 48, 57, 65, 70, 97, 102, 46],
     [58, 93, 48, 57, 65, 70, 97, 102],
     [58, 93, 48, 57, 65, 70, 97, 102],
     [48, 49, 50, 93, 51, 57, 65, 70],
     [97, 102, 46, 58, 93, 48, 57, 65],
     [70, 97, 102, 58, 93, 48, 57, 65],
     [70, 97, 102, 58, 93, 48, 57, 65],
     [70, 97, 102, 58, 93, 48, 49, 50],
     [51, 57, 65, 70, 97, 102, 46, 58],
     [93, 48, 57, 65, 70, 97, 102, 46]]"

definition smp_trans_keys_47 :: "int list list" where
  "smp_trans_keys_47 =
    [[58, 93, 48, 57, 65, 70, 97, 102],
     [46, 58, 93, 48, 57, 65, 70, 97],
     [102, 46, 53, 58, 93, 48, 52, 54],
     [57, 65, 70, 97, 102, 46, 58, 93],
     [48, 53, 54, 57, 65, 70, 97, 102],
     [46, 58, 93, 48, 57, 65, 70, 97],
     [102, 46, 58, 93, 48, 57, 65, 70],
     [97, 102, 58, 93, 48, 57, 65, 70],
     [97, 102, 48, 49, 50, 93, 51, 57],
     [65, 70, 97, 102, 46, 58, 93, 48],
     [57, 65, 70, 97, 102, 58, 93, 48],
     [57, 65, 70, 97, 102, 58, 93, 48],
     [57, 65, 70, 97, 102, 58, 93, 48],
     [49, 50, 51, 57, 65, 70, 97, 102],
     [46, 58, 93, 48, 57, 65, 70, 97],
     [102, 46, 58, 93, 48, 57, 65, 70],
     [97, 102, 46, 58, 93, 48, 57, 65],
     [70, 97, 102, 46, 53, 58, 93, 48],
     [52, 54, 57, 65, 70, 97, 102, 46],
     [58, 93, 48, 53, 54, 57, 65, 70],
     [97, 102, 46, 58, 93, 48, 57, 65],
     [70, 97, 102, 46, 58, 93, 48, 57],
     [65, 70, 97, 102, 58, 93, 48, 57],
     [65, 70, 97, 102, 58, 48, 49, 50],
     [93, 51, 57, 65, 70, 97, 102, 46],
     [58, 93, 48, 57, 65, 70, 97, 102],
     [58, 93, 48, 57, 65, 70, 97, 102],
     [58, 93, 48, 57, 65, 70, 97, 102],
     [58, 93, 48, 49, 50, 51, 57, 65],
     [70, 97, 102, 46, 58, 93, 48, 57],
     [65, 70, 97, 102, 46, 58, 93, 48],
     [57, 65, 70, 97, 102, 46, 58, 93],
     [48, 57, 65, 70, 97, 102, 46, 53],
     [58, 93, 48, 52, 54, 57, 65, 70],
     [97, 102, 46, 58, 93, 48, 53, 54],
     [57, 65, 70, 97, 102, 46, 58, 93],
     [48, 57, 65, 70, 97, 102, 46, 58],
     [93, 48, 57, 65, 70, 97, 102, 58],
     [93, 48, 57, 65, 70, 97, 102, 33],
     [37, 45, 46, 58, 59, 61, 63, 64],
     [95, 126, 35, 47, 48, 57, 65, 90],
     [97, 122, 33, 37, 45, 58, 59, 61],
     [63, 64, 95, 126, 35, 47, 48, 57],
     [65, 90, 97, 122, 33, 37, 45, 46],
     [58, 59, 61, 63, 64, 95, 126, 35],
     [47, 48, 57, 65, 90, 97, 122, 33],
     [37, 58, 59, 61, 63, 64, 95, 126],
     [35, 47, 48, 57, 65, 90, 97, 122],
     [33, 37, 45, 46, 58, 59, 61, 62],
     [63, 64, 95, 126, 35, 47, 48, 57],
     [65, 90, 97, 122, 33, 37, 45, 58],
     [59, 61, 63, 64, 95, 126, 35, 47],
     [48, 57, 65, 90, 97, 122, 33, 37],
     [58, 59, 61, 62, 63, 64, 95, 126],
     [35, 47, 48, 57, 65, 90, 97, 122],
     [33, 37, 48, 54, 61, 64, 95, 126],
     [36, 46, 49, 53, 55, 57, 65, 90],
     [97, 122, 33, 37, 48, 61, 64, 95],
     [126, 36, 46, 49, 57, 65, 90, 97],
     [122, 33, 37, 48, 61, 64, 95, 126],
     [36, 46, 49, 57, 65, 90, 97, 122],
     [33, 37, 48, 61, 64, 95, 126, 36],
     [46, 49, 57, 65, 90, 97, 122, 33],
     [37, 59, 62, 63, 64, 95, 126, 36],
     [46, 48, 57, 61, 90, 97, 122, 33],
     [37, 59, 62, 63, 64, 95, 126, 36],
     [46, 48, 57, 61, 90, 97, 122, 33],
     [37, 59, 62, 63, 64, 95, 126, 36],
     [46, 48, 57, 61, 90, 97, 122, 33],
     [37, 59, 62, 63, 64, 95, 126, 36],
     [46, 48, 57, 61, 90, 97, 122, 33],
     [37, 59, 62, 63, 64, 95, 126, 36],
     [46, 48, 57, 61, 90, 97, 122, 33],
     [37, 53, 59, 62, 63, 64, 95, 126],
     [36, 46, 48, 52, 54, 57, 61, 90],
     [97, 122, 33, 37, 53, 59, 62, 63],
     [64, 95, 126, 36, 46, 48, 52, 54],
     [57, 61, 90, 97, 122, 33, 37, 51],
     [59, 62, 63, 64, 95, 126, 36, 46],
     [48, 50, 52, 57, 61, 90, 97, 122],
     [33, 37, 59, 62, 63, 64, 95, 126],
     [36, 46, 48, 53, 54, 57, 61, 90],
     [97, 122, 33, 35, 37, 44, 58, 59],
     [61, 63, 64, 76, 79, 84, 91, 93],
     [95, 108, 111, 116, 126, 36, 57, 65],
     [90, 97, 122, 33, 35, 37, 44, 58],
     [59, 61, 62, 63, 64, 91, 93, 95],
     [126, 36, 57, 65, 90, 97, 122, 48],
     [57, 65, 70, 97, 102, 48, 57, 65],
     [70, 97, 102, 33, 37, 44, 47, 58],
     [59, 61, 62, 63, 64, 91, 93, 95],
     [126, 36, 57, 65, 90, 97, 122, 48],
     [57, 65, 70, 97, 102, 48, 57, 65],
     [70, 97, 102, 33, 37, 44, 47, 58],
     [59, 61, 62, 63, 64, 91, 93, 95],
     [126, 36, 57, 65, 90, 97, 122, 33],
     [37, 44, 47, 58, 59, 61, 62, 63],
     [64, 91, 93, 95, 126, 36, 57, 65],
     [90, 97, 122, 48, 57, 65, 70, 97],
     [102, 48, 57, 65, 70, 97, 102, 33],
     [37, 44, 47, 58, 61, 64, 91, 93],
     [95, 126, 36, 57, 65, 90, 97, 122],
     [33, 35, 37, 44, 58, 59, 61, 62],
     [63, 64, 91, 93, 95, 126, 36, 57],
     [65, 90, 97, 122, 33, 35, 37, 44],
     [58, 59, 61, 62, 63, 64, 91, 93],
     [95, 126, 36, 57, 65, 90, 97, 122],
     [48, 57, 65, 70, 97, 102, 48, 57],
     [65, 70, 97, 102, 33, 36, 37, 44],
     [58, 59, 61, 64, 91, 93, 95, 126],
     [35, 38, 39, 57, 63, 90, 97, 122],
     [33, 36, 37, 44, 58, 59, 61, 64],
     [91, 93, 95, 126, 35, 38, 39, 57],
     [63, 90, 97, 122, 48, 57, 65, 70],
     [97, 102, 48, 57, 65, 70, 97, 102],
     [33, 37, 38, 44, 47, 58, 61, 63],
     [64, 91, 93, 95, 126, 36, 57, 65],
     [90, 97, 122, 48, 57, 65, 70, 97],
     [102, 48, 57, 65, 70, 97, 102, 33],
     [37, 38, 44, 47, 58, 61, 62, 63],
     [64, 91, 93, 95, 126, 36, 57, 65],
     [90, 97, 122, 48, 57, 65, 70, 97],
     [102, 48, 57, 65, 70, 97, 102, 33],
     [37, 38, 44, 47, 58, 61, 63, 64],
     [91, 93, 95, 126, 36, 57, 65, 90],
     [97, 122, 33, 35, 37, 38, 44, 58],
     [59, 61, 62, 64, 91, 93, 95, 126],
     [36, 57, 63, 90, 97, 122, 48, 57],
     [65, 70, 97, 102, 48, 57, 65, 70],
     [97, 102, 33, 35, 37, 44, 58, 59],
     [61, 63, 64, 91, 93, 95, 126, 36],
     [57, 65, 90, 97, 122, 33, 35, 37],
     [44, 58, 59, 61, 62, 63, 64, 82],
     [91, 93, 95, 114, 126, 36, 57, 65],
     [90, 97, 122, 33, 35, 37, 44, 58],
     [59, 61, 62, 63, 64, 91, 93, 95],
     [126, 36, 57, 65, 90, 97, 122, 33],
     [35, 37, 39, 44, 47, 58, 59, 61],
     [62, 63, 64, 91, 93, 96, 126, 36],
     [41, 42, 57, 65, 90, 95, 122, 33],
     [35, 37, 39, 44, 47, 58, 59, 61],
     [62, 63, 64, 91, 93, 96, 126, 36],
     [41, 42, 57, 65, 90, 95, 122, 33],
     [37, 39, 59, 62, 63, 126, 42, 43],
     [45, 46, 48, 57, 65, 70, 71, 90],
     [95, 96, 97, 102, 103, 122, 33, 37],
     [39, 59, 62, 63, 126, 42, 43, 45],
     [46, 48, 57, 65, 70, 71, 90, 95],
     [96, 97, 102, 103, 122, 33, 35, 37],
     [44, 58, 59, 61, 62, 63, 64, 66]]"

definition smp_trans_keys_48 :: "int list list" where
  "smp_trans_keys_48 =
    [[86, 91, 93, 95, 98, 118, 126, 36],
     [57, 65, 90, 97, 122, 33, 35, 37],
     [44, 58, 59, 61, 62, 63, 64, 91],
     [93, 95, 126, 36, 57, 65, 90, 97],
     [122, 33, 35, 37, 44, 58, 59, 61],
     [62, 63, 64, 73, 91, 93, 95, 105],
     [126, 36, 57, 65, 90, 97, 122, 33],
     [35, 37, 44, 58, 59, 61, 62, 63],
     [64, 68, 91, 93, 95, 100, 126, 36],
     [57, 65, 90, 97, 122, 33, 35, 37],
     [44, 58, 59, 61, 62, 63, 64, 91],
     [93, 95, 126, 36, 57, 65, 90, 97],
     [122, 33, 35, 37, 39, 44, 47, 58],
     [59, 61, 62, 63, 64, 91, 93, 96],
     [126, 36, 41, 42, 57, 65, 90, 95],
     [122, 33, 35, 37, 39, 44, 47, 58],
     [59, 61, 62, 63, 64, 91, 93, 96],
     [126, 36, 41, 42, 57, 65, 90, 95],
     [122, 33, 37, 39, 59, 62, 63, 126],
     [42, 43, 45, 46, 48, 57, 65, 70],
     [71, 90, 95, 96, 97, 102, 103, 122],
     [33, 37, 39, 59, 62, 63, 126, 42],
     [43, 45, 46, 48, 57, 65, 70, 71],
     [90, 95, 96, 97, 102, 103, 122, 33],
     [35, 37, 44, 58, 59, 61, 62, 63],
     [64, 82, 91, 93, 95, 114, 126, 36],
     [57, 65, 90, 97, 122, 33, 35, 37],
     [44, 58, 59, 61, 62, 63, 64, 65],
     [91, 93, 95, 97, 126, 36, 57, 66],
     [90, 98, 122, 33, 35, 37, 44, 58],
     [59, 61, 62, 63, 64, 78, 91, 93],
     [95, 110, 126, 36, 57, 65, 90, 97],
     [122, 33, 35, 37, 44, 58, 59, 61],
     [62, 63, 64, 83, 91, 93, 95, 115],
     [126, 36, 57, 65, 90, 97, 122, 33],
     [35, 37, 44, 58, 59, 61, 62, 63],
     [64, 80, 91, 93, 95, 112, 126, 36],
     [57, 65, 90, 97, 122, 33, 35, 37],
     [44, 58, 59, 61, 62, 63, 64, 79],
     [91, 93, 95, 111, 126, 36, 57, 65],
     [90, 97, 122, 33, 35, 37, 44, 58],
     [59, 61, 62, 63, 64, 82, 91, 93],
     [95, 114, 126, 36, 57, 65, 90, 97],
     [122, 33, 35, 37, 44, 58, 59, 61],
     [62, 63, 64, 84, 91, 93, 95, 116],
     [126, 36, 57, 65, 90, 97, 122, 33],
     [35, 37, 44, 58, 59, 61, 62, 63],
     [64, 91, 93, 95, 126, 36, 57, 65],
     [90, 97, 122, 33, 35, 37, 39, 44],
     [47, 58, 59, 61, 62, 63, 64, 83],
     [84, 85, 87, 91, 93, 96, 115, 116],
     [117, 119, 126, 36, 41, 42, 57, 65],
     [90, 95, 122, 33, 35, 37, 39, 44],
     [47, 58, 59, 61, 62, 63, 64, 91],
     [93, 96, 126, 36, 41, 42, 57, 65],
     [90, 95, 122, 33, 37, 39, 59, 62],
     [63, 126, 42, 43, 45, 46, 48, 57],
     [65, 70, 71, 90, 95, 96, 97, 102],
     [103, 122, 33, 37, 39, 59, 62, 63],
     [126, 42, 43, 45, 46, 48, 57, 65],
     [70, 71, 90, 95, 96, 97, 102, 103],
     [122, 33, 35, 37, 39, 44, 47, 58],
     [59, 61, 62, 63, 64, 67, 91, 93],
     [96, 99, 126, 36, 41, 42, 57, 65],
     [90, 95, 122, 33, 35, 37, 39, 44],
     [47, 58, 59, 61, 62, 63, 64, 84],
     [91, 93, 96, 116, 126, 36, 41, 42],
     [57, 65, 90, 95, 122, 33, 35, 37],
     [39, 44, 47, 58, 59, 61, 62, 63],
     [64, 80, 91, 93, 96, 112, 126, 36],
     [41, 42, 57, 65, 90, 95, 122, 33],
     [35, 37, 39, 44, 47, 58, 59, 61],
     [62, 63, 64, 91, 93, 96, 126, 36],
     [41, 42, 57, 65, 90, 95, 122, 33],
     [35, 37, 39, 44, 47, 58, 59, 61],
     [62, 63, 64, 67, 76, 91, 93, 96],
     [99, 108, 126, 36, 41, 42, 57, 65],
     [90, 95, 122, 33, 35, 37, 39, 44],
     [47, 58, 59, 61, 62, 63, 64, 80],
     [91, 93, 96, 112, 126, 36, 41, 42],
     [57, 65, 90, 95, 122, 33, 35, 37],
     [39, 44, 47, 58, 59, 61, 62, 63],
     [64, 91, 93, 96, 126, 36, 41, 42],
     [57, 65, 90, 95, 122, 33, 35, 37],
     [39, 44, 47, 58, 59, 61, 62, 63],
     [64, 83, 91, 93, 96, 115, 126, 36],
     [41, 42, 57, 65, 90, 95, 122, 33],
     [35, 37, 39, 44, 47, 58, 59, 61],
     [62, 63, 64, 91, 93, 96, 126, 36],
     [41, 42, 57, 65, 90, 95, 122, 33],
     [35, 37, 39, 44, 47, 58, 59, 61],
     [62, 63, 64, 68, 91, 93, 96, 100],
     [126, 36, 41, 42, 57, 65, 90, 95],
     [122, 33, 35, 37, 39, 44, 47, 58],
     [59, 61, 62, 63, 64, 80, 91, 93],
     [96, 112, 126, 36, 41, 42, 57, 65],
     [90, 95, 122, 33, 35, 37, 39, 44],
     [47, 58, 59, 61, 62, 63, 64, 91],
     [93, 96, 126, 36, 41, 42, 57, 65],
     [90, 95, 122, 33, 35, 37, 39, 44],
     [47, 58, 59, 61, 62, 63, 64, 83],
     [91, 93, 96, 115, 126, 36, 41, 42],
     [57, 65, 90, 95, 122, 33, 35, 37],
     [39, 44, 47, 58, 59, 61, 62, 63],
     [64, 83, 91, 93, 96, 115, 126, 36],
     [41, 42, 57, 65, 90, 95, 122, 33],
     [35, 37, 39, 44, 47, 58, 59, 61],
     [62, 63, 64, 91, 93, 96, 126, 36],
     [41, 42, 57, 65, 90, 95, 122, 33],
     [37, 48, 49, 50, 58, 59, 61, 63],
     [64, 95, 126, 35, 47, 51, 57, 65],
     [90, 97, 122, 33, 37, 45, 46, 58],
     [59, 61, 63, 64, 95, 126, 35, 47],
     [48, 57, 65, 90, 97, 122, 33, 37],
     [48, 49, 50, 58, 59, 61, 63, 64],
     [95, 126, 35, 47, 51, 57, 65, 90],
     [97, 122, 33, 37, 45, 46, 58, 59],
     [61, 63, 64, 95, 126, 35, 47, 48],
     [57, 65, 90, 97, 122, 33, 37, 48],
     [49, 50, 58, 59, 61, 63, 64, 95],
     [126, 35, 47, 51, 57, 65, 90, 97],
     [122, 33, 37, 45, 46, 58, 59, 61],
     [62, 63, 64, 95, 126, 35, 47, 48],
     [57, 65, 90, 97, 122, 33, 37, 45],
     [46, 58, 59, 61, 62, 63, 64, 95],
     [126, 35, 47, 48, 57, 65, 90, 97],
     [122, 33, 37, 45, 46, 58, 59, 61],
     [62, 63, 64, 95, 126, 35, 47, 48],
     [57, 65, 90, 97, 122, 33, 37, 45],
     [46, 53, 58, 59, 61, 62, 63, 64],
     [95, 126, 35, 47, 48, 52, 54, 57],
     [65, 90, 97, 122, 33, 37, 45, 46],
     [58, 59, 61, 62, 63, 64, 95, 126],
     [35, 47, 48, 53, 54, 57, 65, 90],
     [97, 122, 33, 37, 45, 46, 58, 59],
     [61, 63, 64, 95, 126, 35, 47, 48],
     [57, 65, 90, 97, 122, 33, 37, 45],
     [46, 58, 59, 61, 63, 64, 95, 126],
     [35, 47, 48, 57, 65, 90, 97, 122],
     [33, 37, 45, 46, 53, 58, 59, 61],
     [63, 64, 95, 126, 35, 47, 48, 52],
     [54, 57, 65, 90, 97, 122, 33, 37],
     [45, 46, 58, 59, 61, 63, 64, 95],
     [126, 35, 47, 48, 53, 54, 57, 65],
     [90, 97, 122, 33, 37, 45, 46, 58],
     [59, 61, 63, 64, 95, 126, 35, 47],
     [48, 57, 65, 90, 97, 122, 33, 37],
     [45, 46, 58, 59, 61, 63, 64, 95],
     [126, 35, 47, 48, 57, 65, 90, 97],
     [122, 33, 37, 45, 46, 53, 58, 59]]"

definition smp_trans_keys_49 :: "int list list" where
  "smp_trans_keys_49 =
    [[61, 63, 64, 95, 126, 35, 47, 48],
     [52, 54, 57, 65, 90, 97, 122, 33],
     [37, 45, 46, 58, 59, 61, 63, 64],
     [95, 126, 35, 47, 48, 53, 54, 57],
     [65, 90, 97, 122, 33, 37, 45, 46],
     [58, 59, 61, 63, 64, 95, 126, 35],
     [47, 48, 57, 65, 90, 97, 122, 33],
     [37, 45, 46, 58, 59, 61, 63, 64],
     [95, 126, 35, 47, 48, 57, 65, 90],
     [97, 122, 33, 37, 45, 46, 53, 58],
     [59, 61, 63, 64, 95, 126, 35, 47],
     [48, 52, 54, 57, 65, 90, 97, 122],
     [33, 37, 45, 46, 58, 59, 61, 63],
     [64, 95, 126, 35, 47, 48, 53, 54],
     [57, 65, 90, 97, 122, 58, 0, 9],
     [11, 12, 14, 127, 9, 13, 32, 33],
     [37, 39, 60, 73, 105, 126, 127, -64],
     [-33, -32, -17, -16, -9, -8, -5, -4],
     [-3, -2, 31, 42, 43, 45, 46, 48],
     [57, 65, 90, 95, 122, 9, 13, 32],
     [33, 37, 39, 60, 80, 112, 126, 127],
     [-64, -33, -32, -17, -16, -9, -8, -5],
     [-4, -3, -2, 31, 42, 43, 45, 46],
     [48, 57, 65, 90, 95, 122, 9, 13],
     [32, 33, 37, 39, 58, 60, 83, 115],
     [126, 127, -64, -33, -32, -17, -16, -9],
     [-8, -5, -4, -3, -2, 31, 42, 43],
     [45, 46, 48, 57, 65, 90, 95, 122],
     [13, 33, 37, 48, 49, 50, 61, 91],
     [95, 126, 127, -64, -33, -32, -17, -16],
     [-9, -8, -5, -4, -3, -2, 8, 10],
     [31, 35, 43, 45, 47, 51, 57, 65],
     [90, 97, 122, 13, 33, 37, 58, 61],
     [64, 95, 126, 127, -64, -33, -32, -17],
     [-16, -9, -8, -5, -4, -3, -2, 8],
     [10, 31, 35, 43, 45, 57, 65, 90],
     [97, 122, 13, 127, -64, -33, -32, -17],
     [-16, -9, -8, -5, -4, -3, -2, 8],
     [10, 31, 48, 57, 65, 70, 97, 102],
     [13, 127, -64, -33, -32, -17, -16, -9],
     [-8, -5, -4, -3, -2, 8, 10, 31],
     [48, 57, 65, 70, 97, 102, 13, 33],
     [37, 61, 64, 95, 126, 127, -64, -33],
     [-32, -17, -16, -9, -8, -5, -4, -3],
     [-2, 8, 10, 31, 36, 43, 45, 46],
     [48, 57, 65, 90, 97, 122, 13, 127],
     [-64, -33, -32, -17, -16, -9, -8, -5],
     [-4, -3, -2, 8, 10, 31, 48, 57],
     [65, 70, 97, 102, 13, 127, -64, -33],
     [-32, -17, -16, -9, -8, -5, -4, -3],
     [-2, 8, 10, 31, 48, 57, 65, 70],
     [97, 102, 13, 48, 49, 50, 91, 127],
     [-64, -33, -32, -17, -16, -9, -8, -5],
     [-4, -3, -2, 8, 10, 31, 51, 57],
     [65, 90, 97, 122, 13, 45, 46, 95],
     [127, -64, -33, -32, -17, -16, -9, -8],
     [-5, -4, -3, -2, 8, 10, 31, 48],
     [57, 65, 90, 97, 122, 13, 45, 95],
     [127, -64, -33, -32, -17, -16, -9, -8],
     [-5, -4, -3, -2, 8, 10, 31, 48],
     [57, 65, 90, 97, 122, 13, 45, 46],
     [95, 127, -64, -33, -32, -17, -16, -9],
     [-8, -5, -4, -3, -2, 8, 10, 31],
     [48, 57, 65, 90, 97, 122, 13, 127],
     [-64, -33, -32, -17, -16, -9, -8, -5],
     [-4, -3, -2, 8, 10, 31, 48, 57],
     [65, 90, 97, 122, 9, 13, 32, 44],
     [45, 46, 58, 59, 95, 127, -64, -33],
     [-32, -17, -16, -9, -8, -5, -4, -3],
     [-2, 31, 48, 57, 65, 90, 97, 122],
     [13, 45, 95, 127, -64, -33, -32, -17],
     [-16, -9, -8, -5, -4, -3, -2, 8],
     [10, 31, 48, 57, 65, 90, 97, 122],
     [9, 13, 32, 44, 58, 59, 127, -64],
     [-33, -32, -17, -16, -9, -8, -5, -4],
     [-3, -2, 31, 48, 57, 65, 90, 97],
     [122, 13, 48, 54, 127, -64, -33, -32],
     [-17, -16, -9, -8, -5, -4, -3, -2],
     [8, 10, 31, 49, 53, 55, 57, 13],
     [48, 127, -64, -33, -32, -17, -16, -9],
     [-8, -5, -4, -3, -2, 8, 10, 31],
     [49, 57, 13, 48, 127, -64, -33, -32],
     [-17, -16, -9, -8, -5, -4, -3, -2],
     [8, 10, 31, 49, 57, 13, 127, -64],
     [-33, -32, -17, -16, -9, -8, -5, -4],
     [-3, -2, 8, 10, 31, 49, 57, 9],
     [13, 32, 44, 59, 127, -64, -33, -32],
     [-17, -16, -9, -8, -5, -4, -3, -2],
     [31, 9, 13, 32, 33, 37, 39, 82],
     [114, 126, 127, -64, -33, -32, -17, -16],
     [-9, -8, -5, -4, -3, -2, 31, 42],
     [43, 45, 46, 48, 57, 65, 90, 95],
     [122, 10, 9, 13, 32, 33, 37, 39],
     [67, 70, 73, 75, 76, 77, 80, 82],
     [83, 84, 86, 99, 102, 105, 107, 108],
     [109, 112, 114, 115, 116, 118, 126, 42],
     [43, 45, 46, 48, 57, 65, 90, 95],
     [122, 9, 13, 32, 33, 37, 39, 82],
     [114, 126, 127, -64, -33, -32, -17, -16],
     [-9, -8, -5, -4, -3, -2, 31, 42],
     [43, 45, 46, 48, 57, 65, 90, 95],
     [122, 9, 13, 32, 33, 37, 39, 44],
     [59, 61, 126, 127, -64, -33, -32, -17],
     [-16, -9, -8, -5, -4, -3, -2, 31],
     [42, 46, 48, 57, 65, 90, 95, 122],
     [9, 13, 32, 44, 59, 61, 127, -64],
     [-33, -32, -17, -16, -9, -8, -5, -4],
     [-3, -2, 31, 10, 9, 13, 32, 33],
     [37, 39, 67, 70, 73, 75, 76, 77],
     [80, 82, 83, 84, 86, 99, 102, 105],
     [107, 108, 109, 112, 114, 115, 116, 118],
     [126, 42, 43, 45, 46, 48, 57, 65],
     [90, 95, 122, 9, 13, 32, 44, 59],
     [61, 127, -64, -33, -32, -17, -16, -9],
     [-8, -5, -4, -3, -2, 31, 9, 13],
     [32, 33, 34, 37, 39, 91, 126, 127],
     [-64, -33, -32, -17, -16, -9, -8, -5],
     [-4, -3, -2, 31, 42, 43, 45, 46],
     [48, 57, 65, 90, 95, 122, 10, 9],
     [13, 32, 33, 37, 39, 67, 70, 73],
     [75, 76, 77, 80, 82, 83, 84, 86],
     [99, 102, 105, 107, 108, 109, 112, 114],
     [115, 116, 118, 126, 42, 43, 45, 46],
     [48, 57, 65, 90, 95, 122, 9, 13],
     [32, 33, 34, 37, 39, 91, 126, 127],
     [-64, -33, -32, -17, -16, -9, -8, -5],
     [-4, -3, -2, 31, 42, 43, 45, 46],
     [48, 57, 65, 90, 95, 122, 9, 13],
     [32, 33, 37, 39, 44, 59, 126, 127],
     [-64, -33, -32, -17, -16, -9, -8, -5],
     [-4, -3, -2, 31, 42, 46, 48, 57],
     [65, 90, 95, 122, 13, 34, 92, 127],
     [-128, -65, -64, -33, -32, -17, -16, -9],
     [-8, -5, -4, -3, -2, 8, 10, 31],
     [-128, -65, -128, -65, -128, -65, -128, -65],
     [-128, -65, 10, 9, 13, 32, 33, 37],
     [39, 67, 70, 73, 75, 76, 77, 80],
     [82, 83, 84, 86, 99, 102, 105, 107],
     [108, 109, 112, 114, 115, 116, 118, 126],
     [42, 43, 45, 46, 48, 57, 65, 90],
     [95, 122, 9, 13, 32, 44, 59, 127],
     [-64, -33, -32, -17, -16, -9, -8, -5],
     [-4, -3, -2, 31, 10, 13, 127, -128],
     [-65, -64, -33, -32, -17, -16, -9, -8],
     [-5, -4, -3, -2, -1, 0, 8, 11],
     [31, 13, 58, 127, -64, -33, -32, -17],
     [-16, -9, -8, -5, -4, -3, -2, 8],
     [10, 31, 48, 57, 65, 70, 97, 102],
     [13, 58, 127, -64, -33, -32, -17, -16],
     [-9, -8, -5, -4, -3, -2, 8, 10]]"

definition smp_trans_keys_50 :: "int list list" where
  "smp_trans_keys_50 =
    [[31, 48, 57, 65, 70, 97, 102, 13],
     [58, 127, -64, -33, -32, -17, -16, -9],
     [-8, -5, -4, -3, -2, 8, 10, 31],
     [48, 57, 65, 70, 97, 102, 13, 58],
     [127, -64, -33, -32, -17, -16, -9, -8],
     [-5, -4, -3, -2, 8, 10, 31, 48],
     [57, 65, 70, 97, 102, 13, 58, 127],
     [-64, -33, -32, -17, -16, -9, -8, -5],
     [-4, -3, -2, 8, 10, 31, 13, 58],
     [127, -64, -33, -32, -17, -16, -9, -8],
     [-5, -4, -3, -2, 8, 10, 31, 48],
     [57, 65, 70, 97, 102, 13, 58, 127],
     [-64, -33, -32, -17, -16, -9, -8, -5],
     [-4, -3, -2, 8, 10, 31, 48, 57],
     [65, 70, 97, 102, 13, 58, 127, -64],
     [-33, -32, -17, -16, -9, -8, -5, -4],
     [-3, -2, 8, 10, 31, 48, 57, 65],
     [70, 97, 102, 13, 58, 127, -64, -33],
     [-32, -17, -16, -9, -8, -5, -4, -3],
     [-2, 8, 10, 31, 48, 57, 65, 70],
     [97, 102, 13, 58, 127, -64, -33, -32],
     [-17, -16, -9, -8, -5, -4, -3, -2],
     [8, 10, 31, 13, 58, 127, -64, -33],
     [-32, -17, -16, -9, -8, -5, -4, -3],
     [-2, 8, 10, 31, 48, 57, 65, 70],
     [97, 102, 13, 58, 127, -64, -33, -32],
     [-17, -16, -9, -8, -5, -4, -3, -2],
     [8, 10, 31, 48, 57, 65, 70, 97],
     [102, 13, 58, 127, -64, -33, -32, -17],
     [-16, -9, -8, -5, -4, -3, -2, 8],
     [10, 31, 48, 57, 65, 70, 97, 102],
     [13, 58, 127, -64, -33, -32, -17, -16],
     [-9, -8, -5, -4, -3, -2, 8, 10],
     [31, 48, 57, 65, 70, 97, 102, 13],
     [58, 127, -64, -33, -32, -17, -16, -9],
     [-8, -5, -4, -3, -2, 8, 10, 31],
     [13, 58, 127, -64, -33, -32, -17, -16],
     [-9, -8, -5, -4, -3, -2, 8, 10],
     [31, 48, 57, 65, 70, 97, 102, 13],
     [58, 127, -64, -33, -32, -17, -16, -9],
     [-8, -5, -4, -3, -2, 8, 10, 31],
     [48, 57, 65, 70, 97, 102, 13, 58],
     [127, -64, -33, -32, -17, -16, -9, -8],
     [-5, -4, -3, -2, 8, 10, 31, 48],
     [57, 65, 70, 97, 102, 13, 58, 127],
     [-64, -33, -32, -17, -16, -9, -8, -5],
     [-4, -3, -2, 8, 10, 31, 48, 57],
     [65, 70, 97, 102, 13, 58, 127, -64],
     [-33, -32, -17, -16, -9, -8, -5, -4],
     [-3, -2, 8, 10, 31, 13, 58, 127],
     [-64, -33, -32, -17, -16, -9, -8, -5],
     [-4, -3, -2, 8, 10, 31, 48, 57],
     [65, 70, 97, 102, 13, 58, 127, -64],
     [-33, -32, -17, -16, -9, -8, -5, -4],
     [-3, -2, 8, 10, 31, 48, 57, 65],
     [70, 97, 102, 13, 58, 127, -64, -33],
     [-32, -17, -16, -9, -8, -5, -4, -3],
     [-2, 8, 10, 31, 48, 57, 65, 70],
     [97, 102, 13, 58, 127, -64, -33, -32],
     [-17, -16, -9, -8, -5, -4, -3, -2],
     [8, 10, 31, 48, 57, 65, 70, 97],
     [102, 13, 58, 127, -64, -33, -32, -17],
     [-16, -9, -8, -5, -4, -3, -2, 8],
     [10, 31, 13, 58, 127, -64, -33, -32],
     [-17, -16, -9, -8, -5, -4, -3, -2],
     [8, 10, 31, 48, 57, 65, 70, 97],
     [102, 13, 58, 127, -64, -33, -32, -17],
     [-16, -9, -8, -5, -4, -3, -2, 8],
     [10, 31, 48, 57, 65, 70, 97, 102],
     [13, 58, 127, -64, -33, -32, -17, -16],
     [-9, -8, -5, -4, -3, -2, 8, 10],
     [31, 48, 57, 65, 70, 97, 102, 13],
     [58, 127, -64, -33, -32, -17, -16, -9],
     [-8, -5, -4, -3, -2, 8, 10, 31],
     [48, 57, 65, 70, 97, 102, 13, 58],
     [127, -64, -33, -32, -17, -16, -9, -8],
     [-5, -4, -3, -2, 8, 10, 31, 13],
     [48, 49, 50, 58, 127, -64, -33, -32],
     [-17, -16, -9, -8, -5, -4, -3, -2],
     [8, 10, 31, 51, 57, 65, 70, 97],
     [102, 13, 46, 58, 127, -64, -33, -32],
     [-17, -16, -9, -8, -5, -4, -3, -2],
     [8, 10, 31, 48, 57, 65, 70, 97],
     [102, 13, 48, 49, 50, 127, -64, -33],
     [-32, -17, -16, -9, -8, -5, -4, -3],
     [-2, 8, 10, 31, 51, 57, 13, 46],
     [127, -64, -33, -32, -17, -16, -9, -8],
     [-5, -4, -3, -2, 8, 10, 31, 13],
     [48, 49, 50, 127, -64, -33, -32, -17],
     [-16, -9, -8, -5, -4, -3, -2, 8],
     [10, 31, 51, 57, 13, 46, 127, -64],
     [-33, -32, -17, -16, -9, -8, -5, -4],
     [-3, -2, 8, 10, 31, 13, 48, 49],
     [50, 127, -64, -33, -32, -17, -16, -9],
     [-8, -5, -4, -3, -2, 8, 10, 31],
     [51, 57, 13, 93, 127, -64, -33, -32],
     [-17, -16, -9, -8, -5, -4, -3, -2],
     [8, 10, 31, 13, 93, 127, -64, -33],
     [-32, -17, -16, -9, -8, -5, -4, -3],
     [-2, 8, 10, 31, 48, 57, 13, 93],
     [127, -64, -33, -32, -17, -16, -9, -8],
     [-5, -4, -3, -2, 8, 10, 31, 48],
     [57, 13, 53, 93, 127, -64, -33, -32],
     [-17, -16, -9, -8, -5, -4, -3, -2],
     [8, 10, 31, 48, 52, 54, 57, 13],
     [93, 127, -64, -33, -32, -17, -16, -9],
     [-8, -5, -4, -3, -2, 8, 10, 31],
     [48, 53, 13, 46, 127, -64, -33, -32],
     [-17, -16, -9, -8, -5, -4, -3, -2],
     [8, 10, 31, 48, 57, 13, 46, 127],
     [-64, -33, -32, -17, -16, -9, -8, -5],
     [-4, -3, -2, 8, 10, 31, 48, 57],
     [13, 46, 53, 127, -64, -33, -32, -17],
     [-16, -9, -8, -5, -4, -3, -2, 8],
     [10, 31, 48, 52, 54, 57, 13, 46],
     [127, -64, -33, -32, -17, -16, -9, -8],
     [-5, -4, -3, -2, 8, 10, 31, 48],
     [53, 13, 46, 127, -64, -33, -32, -17],
     [-16, -9, -8, -5, -4, -3, -2, 8],
     [10, 31, 48, 57, 13, 46, 127, -64],
     [-33, -32, -17, -16, -9, -8, -5, -4],
     [-3, -2, 8, 10, 31, 48, 57, 13],
     [46, 53, 127, -64, -33, -32, -17, -16],
     [-9, -8, -5, -4, -3, -2, 8, 10],
     [31, 48, 52, 54, 57, 13, 46, 127],
     [-64, -33, -32, -17, -16, -9, -8, -5],
     [-4, -3, -2, 8, 10, 31, 48, 53],
     [13, 58, 127, -64, -33, -32, -17, -16],
     [-9, -8, -5, -4, -3, -2, 8, 10],
     [31, 48, 57, 65, 70, 97, 102, 13],
     [58, 127, -64, -33, -32, -17, -16, -9],
     [-8, -5, -4, -3, -2, 8, 10, 31],
     [48, 57, 65, 70, 97, 102, 13, 58],
     [127, -64, -33, -32, -17, -16, -9, -8],
     [-5, -4, -3, -2, 8, 10, 31, 13],
     [58, 127, -64, -33, -32, -17, -16, -9],
     [-8, -5, -4, -3, -2, 8, 10, 31],
     [48, 57, 65, 70, 97, 102, 13, 93],
     [127, -64, -33, -32, -17, -16, -9, -8],
     [-5, -4, -3, -2, 8, 10, 31, 48],
     [57, 65, 70, 97, 102, 13, 93, 127],
     [-64, -33, -32, -17, -16, -9, -8, -5],
     [-4, -3, -2, 8, 10, 31, 48, 57],
     [65, 70, 97, 102, 13, 93, 127, -64],
     [-33, -32, -17, -16, -9, -8, -5, -4],
     [-3, -2, 8, 10, 31, 48, 57, 65],
     [70, 97, 102, 13, 46, 58, 127, -64],
     [-33, -32, -17, -16, -9, -8, -5, -4],
     [-3, -2, 8, 10, 31, 48, 57, 65],
     [70, 97, 102, 13, 46, 58, 127, -64]]"

definition smp_trans_keys_51 :: "int list list" where
  "smp_trans_keys_51 =
    [[-33, -32, -17, -16, -9, -8, -5, -4],
     [-3, -2, 8, 10, 31, 48, 57, 65],
     [70, 97, 102, 13, 46, 58, 127, -64],
     [-33, -32, -17, -16, -9, -8, -5, -4],
     [-3, -2, 8, 10, 31, 48, 57, 65],
     [70, 97, 102, 13, 46, 53, 58, 127],
     [-64, -33, -32, -17, -16, -9, -8, -5],
     [-4, -3, -2, 8, 10, 31, 48, 52],
     [54, 57, 65, 70, 97, 102, 13, 46],
     [58, 127, -64, -33, -32, -17, -16, -9],
     [-8, -5, -4, -3, -2, 8, 10, 31],
     [48, 53, 54, 57, 65, 70, 97, 102],
     [13, 46, 58, 127, -64, -33, -32, -17],
     [-16, -9, -8, -5, -4, -3, -2, 8],
     [10, 31, 48, 57, 65, 70, 97, 102],
     [13, 46, 58, 127, -64, -33, -32, -17],
     [-16, -9, -8, -5, -4, -3, -2, 8],
     [10, 31, 48, 57, 65, 70, 97, 102],
     [13, 93, 127, -64, -33, -32, -17, -16],
     [-9, -8, -5, -4, -3, -2, 8, 10],
     [31, 48, 57, 65, 70, 97, 102, 13],
     [58, 127, -64, -33, -32, -17, -16, -9],
     [-8, -5, -4, -3, -2, 8, 10, 31],
     [48, 57, 65, 70, 97, 102, 13, 48],
     [49, 50, 93, 127, -64, -33, -32, -17],
     [-16, -9, -8, -5, -4, -3, -2, 8],
     [10, 31, 51, 57, 65, 70, 97, 102],
     [13, 46, 58, 93, 127, -64, -33, -32],
     [-17, -16, -9, -8, -5, -4, -3, -2],
     [8, 10, 31, 48, 57, 65, 70, 97],
     [102, 13, 58, 93, 127, -64, -33, -32],
     [-17, -16, -9, -8, -5, -4, -3, -2],
     [8, 10, 31, 48, 57, 65, 70, 97],
     [102, 13, 58, 93, 127, -64, -33, -32],
     [-17, -16, -9, -8, -5, -4, -3, -2],
     [8, 10, 31, 48, 57, 65, 70, 97],
     [102, 13, 58, 93, 127, -64, -33, -32],
     [-17, -16, -9, -8, -5, -4, -3, -2],
     [8, 10, 31, 13, 127, -64, -33, -32],
     [-17, -16, -9, -8, -5, -4, -3, -2],
     [8, 10, 31, 48, 57, 65, 70, 97],
     [102, 13, 46, 58, 93, 127, -64, -33],
     [-32, -17, -16, -9, -8, -5, -4, -3],
     [-2, 8, 10, 31, 48, 57, 65, 70],
     [97, 102, 13, 46, 58, 93, 127, -64],
     [-33, -32, -17, -16, -9, -8, -5, -4],
     [-3, -2, 8, 10, 31, 48, 57, 65],
     [70, 97, 102, 13, 46, 58, 93, 127],
     [-64, -33, -32, -17, -16, -9, -8, -5],
     [-4, -3, -2, 8, 10, 31, 48, 57],
     [65, 70, 97, 102, 13, 46, 53, 58],
     [93, 127, -64, -33, -32, -17, -16, -9],
     [-8, -5, -4, -3, -2, 8, 10, 31],
     [48, 52, 54, 57, 65, 70, 97, 102],
     [13, 46, 58, 93, 127, -64, -33, -32],
     [-17, -16, -9, -8, -5, -4, -3, -2],
     [8, 10, 31, 48, 53, 54, 57, 65],
     [70, 97, 102, 13, 46, 58, 93, 127],
     [-64, -33, -32, -17, -16, -9, -8, -5],
     [-4, -3, -2, 8, 10, 31, 48, 57],
     [65, 70, 97, 102, 13, 46, 58, 93],
     [127, -64, -33, -32, -17, -16, -9, -8],
     [-5, -4, -3, -2, 8, 10, 31, 48],
     [57, 65, 70, 97, 102, 13, 58, 93],
     [127, -64, -33, -32, -17, -16, -9, -8],
     [-5, -4, -3, -2, 8, 10, 31, 48],
     [57, 65, 70, 97, 102, 13, 48, 49],
     [50, 93, 127, -64, -33, -32, -17, -16],
     [-9, -8, -5, -4, -3, -2, 8, 10],
     [31, 51, 57, 65, 70, 97, 102, 13],
     [46, 58, 93, 127, -64, -33, -32, -17],
     [-16, -9, -8, -5, -4, -3, -2, 8],
     [10, 31, 48, 57, 65, 70, 97, 102],
     [13, 58, 93, 127, -64, -33, -32, -17],
     [-16, -9, -8, -5, -4, -3, -2, 8],
     [10, 31, 48, 57, 65, 70, 97, 102],
     [13, 58, 93, 127, -64, -33, -32, -17],
     [-16, -9, -8, -5, -4, -3, -2, 8],
     [10, 31, 48, 57, 65, 70, 97, 102],
     [13, 58, 93, 127, -64, -33, -32, -17],
     [-16, -9, -8, -5, -4, -3, -2, 8],
     [10, 31, 13, 48, 49, 50, 127, -64],
     [-33, -32, -17, -16, -9, -8, -5, -4],
     [-3, -2, 8, 10, 31, 51, 57, 65],
     [70, 97, 102, 13, 46, 58, 93, 127],
     [-64, -33, -32, -17, -16, -9, -8, -5],
     [-4, -3, -2, 8, 10, 31, 48, 57],
     [65, 70, 97, 102, 13, 46, 58, 93],
     [127, -64, -33, -32, -17, -16, -9, -8],
     [-5, -4, -3, -2, 8, 10, 31, 48],
     [57, 65, 70, 97, 102, 13, 46, 58],
     [93, 127, -64, -33, -32, -17, -16, -9],
     [-8, -5, -4, -3, -2, 8, 10, 31],
     [48, 57, 65, 70, 97, 102, 13, 46],
     [53, 58, 93, 127, -64, -33, -32, -17],
     [-16, -9, -8, -5, -4, -3, -2, 8],
     [10, 31, 48, 52, 54, 57, 65, 70],
     [97, 102, 13, 46, 58, 93, 127, -64],
     [-33, -32, -17, -16, -9, -8, -5, -4],
     [-3, -2, 8, 10, 31, 48, 53, 54],
     [57, 65, 70, 97, 102, 13, 46, 58],
     [93, 127, -64, -33, -32, -17, -16, -9],
     [-8, -5, -4, -3, -2, 8, 10, 31],
     [48, 57, 65, 70, 97, 102, 13, 46],
     [58, 93, 127, -64, -33, -32, -17, -16],
     [-9, -8, -5, -4, -3, -2, 8, 10],
     [31, 48, 57, 65, 70, 97, 102, 13],
     [58, 93, 127, -64, -33, -32, -17, -16],
     [-9, -8, -5, -4, -3, -2, 8, 10],
     [31, 48, 57, 65, 70, 97, 102, 13],
     [48, 49, 50, 93, 127, -64, -33, -32],
     [-17, -16, -9, -8, -5, -4, -3, -2],
     [8, 10, 31, 51, 57, 65, 70, 97],
     [102, 13, 46, 58, 93, 127, -64, -33],
     [-32, -17, -16, -9, -8, -5, -4, -3],
     [-2, 8, 10, 31, 48, 57, 65, 70],
     [97, 102, 13, 58, 93, 127, -64, -33],
     [-32, -17, -16, -9, -8, -5, -4, -3],
     [-2, 8, 10, 31, 48, 57, 65, 70],
     [97, 102, 13, 58, 93, 127, -64, -33],
     [-32, -17, -16, -9, -8, -5, -4, -3],
     [-2, 8, 10, 31, 48, 57, 65, 70],
     [97, 102, 13, 58, 93, 127, -64, -33],
     [-32, -17, -16, -9, -8, -5, -4, -3],
     [-2, 8, 10, 31, 13, 48, 49, 50],
     [127, -64, -33, -32, -17, -16, -9, -8],
     [-5, -4, -3, -2, 8, 10, 31, 51],
     [57, 65, 70, 97, 102, 13, 46, 58],
     [93, 127, -64, -33, -32, -17, -16, -9],
     [-8, -5, -4, -3, -2, 8, 10, 31],
     [48, 57, 65, 70, 97, 102, 13, 46],
     [58, 93, 127, -64, -33, -32, -17, -16],
     [-9, -8, -5, -4, -3, -2, 8, 10],
     [31, 48, 57, 65, 70, 97, 102, 13],
     [46, 58, 93, 127, -64, -33, -32, -17],
     [-16, -9, -8, -5, -4, -3, -2, 8],
     [10, 31, 48, 57, 65, 70, 97, 102],
     [13, 46, 53, 58, 93, 127, -64, -33],
     [-32, -17, -16, -9, -8, -5, -4, -3],
     [-2, 8, 10, 31, 48, 52, 54, 57],
     [65, 70, 97, 102, 13, 46, 58, 93],
     [127, -64, -33, -32, -17, -16, -9, -8],
     [-5, -4, -3, -2, 8, 10, 31, 48],
     [53, 54, 57, 65, 70, 97, 102, 13],
     [46, 58, 93, 127, -64, -33, -32, -17],
     [-16, -9, -8, -5, -4, -3, -2, 8],
     [10, 31, 48, 57, 65, 70, 97, 102],
     [13, 46, 58, 93, 127, -64, -33, -32],
     [-17, -16, -9, -8, -5, -4, -3, -2],
     [8, 10, 31, 48, 57, 65, 70, 97]]"

definition smp_trans_keys_52 :: "int list list" where
  "smp_trans_keys_52 =
    [[102, 13, 58, 93, 127, -64, -33, -32],
     [-17, -16, -9, -8, -5, -4, -3, -2],
     [8, 10, 31, 48, 57, 65, 70, 97],
     [102, 13, 48, 49, 50, 93, 127, -64],
     [-33, -32, -17, -16, -9, -8, -5, -4],
     [-3, -2, 8, 10, 31, 51, 57, 65],
     [70, 97, 102, 13, 46, 58, 93, 127],
     [-64, -33, -32, -17, -16, -9, -8, -5],
     [-4, -3, -2, 8, 10, 31, 48, 57],
     [65, 70, 97, 102, 13, 58, 93, 127],
     [-64, -33, -32, -17, -16, -9, -8, -5],
     [-4, -3, -2, 8, 10, 31, 48, 57],
     [65, 70, 97, 102, 13, 58, 93, 127],
     [-64, -33, -32, -17, -16, -9, -8, -5],
     [-4, -3, -2, 8, 10, 31, 48, 57],
     [65, 70, 97, 102, 13, 58, 93, 127],
     [-64, -33, -32, -17, -16, -9, -8, -5],
     [-4, -3, -2, 8, 10, 31, 13, 48],
     [49, 50, 127, -64, -33, -32, -17, -16],
     [-9, -8, -5, -4, -3, -2, 8, 10],
     [31, 51, 57, 65, 70, 97, 102, 13],
     [46, 58, 93, 127, -64, -33, -32, -17],
     [-16, -9, -8, -5, -4, -3, -2, 8],
     [10, 31, 48, 57, 65, 70, 97, 102],
     [13, 46, 58, 93, 127, -64, -33, -32],
     [-17, -16, -9, -8, -5, -4, -3, -2],
     [8, 10, 31, 48, 57, 65, 70, 97],
     [102, 13, 46, 58, 93, 127, -64, -33],
     [-32, -17, -16, -9, -8, -5, -4, -3],
     [-2, 8, 10, 31, 48, 57, 65, 70],
     [97, 102, 13, 46, 53, 58, 93, 127],
     [-64, -33, -32, -17, -16, -9, -8, -5],
     [-4, -3, -2, 8, 10, 31, 48, 52],
     [54, 57, 65, 70, 97, 102, 13, 46],
     [58, 93, 127, -64, -33, -32, -17, -16],
     [-9, -8, -5, -4, -3, -2, 8, 10],
     [31, 48, 53, 54, 57, 65, 70, 97],
     [102, 13, 46, 58, 93, 127, -64, -33],
     [-32, -17, -16, -9, -8, -5, -4, -3],
     [-2, 8, 10, 31, 48, 57, 65, 70],
     [97, 102, 13, 46, 58, 93, 127, -64],
     [-33, -32, -17, -16, -9, -8, -5, -4],
     [-3, -2, 8, 10, 31, 48, 57, 65],
     [70, 97, 102, 13, 58, 93, 127, -64],
     [-33, -32, -17, -16, -9, -8, -5, -4],
     [-3, -2, 8, 10, 31, 48, 57, 65],
     [70, 97, 102, 13, 48, 49, 50, 93],
     [127, -64, -33, -32, -17, -16, -9, -8],
     [-5, -4, -3, -2, 8, 10, 31, 51],
     [57, 65, 70, 97, 102, 13, 46, 58],
     [93, 127, -64, -33, -32, -17, -16, -9],
     [-8, -5, -4, -3, -2, 8, 10, 31],
     [48, 57, 65, 70, 97, 102, 13, 58],
     [93, 127, -64, -33, -32, -17, -16, -9],
     [-8, -5, -4, -3, -2, 8, 10, 31],
     [48, 57, 65, 70, 97, 102, 13, 58],
     [93, 127, -64, -33, -32, -17, -16, -9],
     [-8, -5, -4, -3, -2, 8, 10, 31],
     [48, 57, 65, 70, 97, 102, 13, 58],
     [93, 127, -64, -33, -32, -17, -16, -9],
     [-8, -5, -4, -3, -2, 8, 10, 31],
     [13, 48, 49, 50, 127, -64, -33, -32],
     [-17, -16, -9, -8, -5, -4, -3, -2],
     [8, 10, 31, 51, 57, 65, 70, 97],
     [102, 13, 46, 58, 93, 127, -64, -33],
     [-32, -17, -16, -9, -8, -5, -4, -3],
     [-2, 8, 10, 31, 48, 57, 65, 70],
     [97, 102, 13, 46, 58, 93, 127, -64],
     [-33, -32, -17, -16, -9, -8, -5, -4],
     [-3, -2, 8, 10, 31, 48, 57, 65],
     [70, 97, 102, 13, 46, 58, 93, 127],
     [-64, -33, -32, -17, -16, -9, -8, -5],
     [-4, -3, -2, 8, 10, 31, 48, 57],
     [65, 70, 97, 102, 13, 46, 53, 58],
     [93, 127, -64, -33, -32, -17, -16, -9],
     [-8, -5, -4, -3, -2, 8, 10, 31],
     [48, 52, 54, 57, 65, 70, 97, 102],
     [13, 46, 58, 93, 127, -64, -33, -32],
     [-17, -16, -9, -8, -5, -4, -3, -2],
     [8, 10, 31, 48, 53, 54, 57, 65],
     [70, 97, 102, 13, 46, 58, 93, 127],
     [-64, -33, -32, -17, -16, -9, -8, -5],
     [-4, -3, -2, 8, 10, 31, 48, 57],
     [65, 70, 97, 102, 13, 46, 58, 93],
     [127, -64, -33, -32, -17, -16, -9, -8],
     [-5, -4, -3, -2, 8, 10, 31, 48],
     [57, 65, 70, 97, 102, 13, 58, 93],
     [127, -64, -33, -32, -17, -16, -9, -8],
     [-5, -4, -3, -2, 8, 10, 31, 48],
     [57, 65, 70, 97, 102, 13, 58, 127],
     [-64, -33, -32, -17, -16, -9, -8, -5],
     [-4, -3, -2, 8, 10, 31, 13, 48],
     [49, 50, 93, 127, -64, -33, -32, -17],
     [-16, -9, -8, -5, -4, -3, -2, 8],
     [10, 31, 51, 57, 65, 70, 97, 102],
     [13, 46, 58, 93, 127, -64, -33, -32],
     [-17, -16, -9, -8, -5, -4, -3, -2],
     [8, 10, 31, 48, 57, 65, 70, 97],
     [102, 13, 58, 93, 127, -64, -33, -32],
     [-17, -16, -9, -8, -5, -4, -3, -2],
     [8, 10, 31, 48, 57, 65, 70, 97],
     [102, 13, 58, 93, 127, -64, -33, -32],
     [-17, -16, -9, -8, -5, -4, -3, -2],
     [8, 10, 31, 48, 57, 65, 70, 97],
     [102, 13, 58, 93, 127, -64, -33, -32],
     [-17, -16, -9, -8, -5, -4, -3, -2],
     [8, 10, 31, 13, 48, 49, 50, 127],
     [-64, -33, -32, -17, -16, -9, -8, -5],
     [-4, -3, -2, 8, 10, 31, 51, 57],
     [65, 70, 97, 102, 13, 46, 58, 93],
     [127, -64, -33, -32, -17, -16, -9, -8],
     [-5, -4, -3, -2, 8, 10, 31, 48],
     [57, 65, 70, 97, 102, 13, 46, 58],
     [93, 127, -64, -33, -32, -17, -16, -9],
     [-8, -5, -4, -3, -2, 8, 10, 31],
     [48, 57, 65, 70, 97, 102, 13, 46],
     [58, 93, 127, -64, -33, -32, -17, -16],
     [-9, -8, -5, -4, -3, -2, 8, 10],
     [31, 48, 57, 65, 70, 97, 102, 13],
     [46, 53, 58, 93, 127, -64, -33, -32],
     [-17, -16, -9, -8, -5, -4, -3, -2],
     [8, 10, 31, 48, 52, 54, 57, 65],
     [70, 97, 102, 13, 46, 58, 93, 127],
     [-64, -33, -32, -17, -16, -9, -8, -5],
     [-4, -3, -2, 8, 10, 31, 48, 53],
     [54, 57, 65, 70, 97, 102, 13, 46],
     [58, 93, 127, -64, -33, -32, -17, -16],
     [-9, -8, -5, -4, -3, -2, 8, 10],
     [31, 48, 57, 65, 70, 97, 102, 13],
     [46, 58, 93, 127, -64, -33, -32, -17],
     [-16, -9, -8, -5, -4, -3, -2, 8],
     [10, 31, 48, 57, 65, 70, 97, 102],
     [13, 58, 93, 127, -64, -33, -32, -17],
     [-16, -9, -8, -5, -4, -3, -2, 8],
     [10, 31, 48, 57, 65, 70, 97, 102],
     [9, 13, 32, 33, 37, 39, 44, 59],
     [61, 69, 101, 126, 127, -64, -33, -32],
     [-17, -16, -9, -8, -5, -4, -3, -2],
     [31, 42, 46, 48, 57, 65, 90, 95],
     [122, 9, 13, 32, 33, 37, 39, 44],
     [59, 61, 71, 103, 126, 127, -64, -33],
     [-32, -17, -16, -9, -8, -5, -4, -3],
     [-2, 31, 42, 46, 48, 57, 65, 90],
     [95, 122, 9, 13, 32, 33, 37, 39],
     [44, 45, 59, 61, 126, 127, -64, -33],
     [-32, -17, -16, -9, -8, -5, -4, -3],
     [-2, 31, 42, 46, 48, 57, 65, 90],
     [95, 122, 9, 13, 32, 33, 37, 39],
     [44, 59, 61, 73, 105, 126, 127, -64],
     [-33, -32, -17, -16, -9, -8, -5, -4]]"

definition smp_trans_keys_53 :: "int list list" where
  "smp_trans_keys_53 =
    [[-3, -2, 31, 42, 46, 48, 57, 65],
     [90, 95, 122, 9, 13, 32, 33, 37],
     [39, 44, 59, 61, 68, 100, 126, 127],
     [-64, -33, -32, -17, -16, -9, -8, -5],
     [-4, -3, -2, 31, 42, 46, 48, 57],
     [65, 90, 95, 122, 9, 13, 32, 33],
     [37, 39, 44, 59, 61, 126, 127, -64],
     [-33, -32, -17, -16, -9, -8, -5, -4],
     [-3, -2, 31, 42, 46, 48, 57, 65],
     [90, 95, 122, 9, 13, 32, 44, 59],
     [127, -64, -33, -32, -17, -16, -9, -8],
     [-5, -4, -3, -2, 31, 48, 57, 9],
     [13, 32, 44, 59, 127, -64, -33, -32],
     [-17, -16, -9, -8, -5, -4, -3, -2],
     [31, 48, 57, 9, 13, 32, 44, 59],
     [127, -64, -33, -32, -17, -16, -9, -8],
     [-5, -4, -3, -2, 31, 48, 57, 9],
     [13, 32, 44, 59, 127, -64, -33, -32],
     [-17, -16, -9, -8, -5, -4, -3, -2],
     [31, 48, 57, 9, 13, 32, 44, 53],
     [59, 127, -64, -33, -32, -17, -16, -9],
     [-8, -5, -4, -3, -2, 31, 48, 52],
     [54, 57, 9, 13, 32, 44, 53, 59],
     [127, -64, -33, -32, -17, -16, -9, -8],
     [-5, -4, -3, -2, 31, 48, 52, 54],
     [57, 9, 13, 32, 44, 51, 59, 127],
     [-64, -33, -32, -17, -16, -9, -8, -5],
     [-4, -3, -2, 31, 48, 50, 52, 57],
     [9, 13, 32, 44, 59, 127, -64, -33],
     [-32, -17, -16, -9, -8, -5, -4, -3],
     [-2, 31, 48, 53, 13, 48, 49, 50],
     [127, -64, -33, -32, -17, -16, -9, -8],
     [-5, -4, -3, -2, 8, 10, 31, 51],
     [57, 65, 90, 97, 122, 13, 45, 46],
     [95, 127, -64, -33, -32, -17, -16, -9],
     [-8, -5, -4, -3, -2, 8, 10, 31],
     [48, 57, 65, 90, 97, 122, 13, 48],
     [49, 50, 127, -64, -33, -32, -17, -16],
     [-9, -8, -5, -4, -3, -2, 8, 10],
     [31, 51, 57, 65, 90, 97, 122, 13],
     [45, 46, 95, 127, -64, -33, -32, -17],
     [-16, -9, -8, -5, -4, -3, -2, 8],
     [10, 31, 48, 57, 65, 90, 97, 122],
     [13, 48, 49, 50, 127, -64, -33, -32],
     [-17, -16, -9, -8, -5, -4, -3, -2],
     [8, 10, 31, 51, 57, 65, 90, 97],
     [122, 9, 13, 32, 44, 45, 46, 58],
     [59, 95, 127, -64, -33, -32, -17, -16],
     [-9, -8, -5, -4, -3, -2, 31, 48],
     [57, 65, 90, 97, 122, 9, 13, 32],
     [44, 45, 46, 58, 59, 95, 127, -64],
     [-33, -32, -17, -16, -9, -8, -5, -4],
     [-3, -2, 31, 48, 57, 65, 90, 97],
     [122, 9, 13, 32, 44, 45, 46, 58],
     [59, 95, 127, -64, -33, -32, -17, -16],
     [-9, -8, -5, -4, -3, -2, 31, 48],
     [57, 65, 90, 97, 122, 9, 13, 32],
     [44, 45, 46, 53, 58, 59, 95, 127],
     [-64, -33, -32, -17, -16, -9, -8, -5],
     [-4, -3, -2, 31, 48, 52, 54, 57],
     [65, 90, 97, 122, 9, 13, 32, 44],
     [45, 46, 58, 59, 95, 127, -64, -33],
     [-32, -17, -16, -9, -8, -5, -4, -3],
     [-2, 31, 48, 53, 54, 57, 65, 90],
     [97, 122, 13, 45, 46, 95, 127, -64],
     [-33, -32, -17, -16, -9, -8, -5, -4],
     [-3, -2, 8, 10, 31, 48, 57, 65],
     [90, 97, 122, 13, 45, 46, 95, 127],
     [-64, -33, -32, -17, -16, -9, -8, -5],
     [-4, -3, -2, 8, 10, 31, 48, 57],
     [65, 90, 97, 122, 13, 45, 46, 53],
     [95, 127, -64, -33, -32, -17, -16, -9],
     [-8, -5, -4, -3, -2, 8, 10, 31],
     [48, 52, 54, 57, 65, 90, 97, 122],
     [13, 45, 46, 95, 127, -64, -33, -32],
     [-17, -16, -9, -8, -5, -4, -3, -2],
     [8, 10, 31, 48, 53, 54, 57, 65],
     [90, 97, 122, 13, 45, 46, 95, 127],
     [-64, -33, -32, -17, -16, -9, -8, -5],
     [-4, -3, -2, 8, 10, 31, 48, 57],
     [65, 90, 97, 122, 13, 45, 46, 95],
     [127, -64, -33, -32, -17, -16, -9, -8],
     [-5, -4, -3, -2, 8, 10, 31, 48],
     [57, 65, 90, 97, 122, 13, 45, 46],
     [53, 95, 127, -64, -33, -32, -17, -16],
     [-9, -8, -5, -4, -3, -2, 8, 10],
     [31, 48, 52, 54, 57, 65, 90, 97],
     [122, 13, 45, 46, 95, 127, -64, -33],
     [-32, -17, -16, -9, -8, -5, -4, -3],
     [-2, 8, 10, 31, 48, 53, 54, 57],
     [65, 90, 97, 122, 13, 45, 46, 95],
     [127, -64, -33, -32, -17, -16, -9, -8],
     [-5, -4, -3, -2, 8, 10, 31, 48],
     [57, 65, 90, 97, 122, 13, 45, 46],
     [95, 127, -64, -33, -32, -17, -16, -9],
     [-8, -5, -4, -3, -2, 8, 10, 31],
     [48, 57, 65, 90, 97, 122, 13, 45],
     [46, 53, 95, 127, -64, -33, -32, -17],
     [-16, -9, -8, -5, -4, -3, -2, 8],
     [10, 31, 48, 52, 54, 57, 65, 90],
     [97, 122, 13, 45, 46, 95, 127, -64],
     [-33, -32, -17, -16, -9, -8, -5, -4],
     [-3, -2, 8, 10, 31, 48, 53, 54],
     [57, 65, 90, 97, 122, 13, 58, 127],
     [-64, -33, -32, -17, -16, -9, -8, -5],
     [-4, -3, -2, 8, 10, 31, 48, 57],
     [65, 70, 97, 102, 13, 58, 127, -64],
     [-33, -32, -17, -16, -9, -8, -5, -4],
     [-3, -2, 8, 10, 31, 48, 57, 65],
     [70, 97, 102, 13, 58, 127, -64, -33],
     [-32, -17, -16, -9, -8, -5, -4, -3],
     [-2, 8, 10, 31, 48, 57, 65, 70],
     [97, 102, 13, 58, 127, -64, -33, -32],
     [-17, -16, -9, -8, -5, -4, -3, -2],
     [8, 10, 31, 48, 57, 65, 70, 97],
     [102, 13, 58, 127, -64, -33, -32, -17],
     [-16, -9, -8, -5, -4, -3, -2, 8],
     [10, 31, 13, 58, 127, -64, -33, -32],
     [-17, -16, -9, -8, -5, -4, -3, -2],
     [8, 10, 31, 48, 57, 65, 70, 97],
     [102, 13, 58, 127, -64, -33, -32, -17],
     [-16, -9, -8, -5, -4, -3, -2, 8],
     [10, 31, 48, 57, 65, 70, 97, 102],
     [13, 58, 127, -64, -33, -32, -17, -16],
     [-9, -8, -5, -4, -3, -2, 8, 10],
     [31, 48, 57, 65, 70, 97, 102, 13],
     [58, 127, -64, -33, -32, -17, -16, -9],
     [-8, -5, -4, -3, -2, 8, 10, 31],
     [48, 57, 65, 70, 97, 102, 13, 58],
     [127, -64, -33, -32, -17, -16, -9, -8],
     [-5, -4, -3, -2, 8, 10, 31, 13],
     [58, 127, -64, -33, -32, -17, -16, -9],
     [-8, -5, -4, -3, -2, 8, 10, 31],
     [48, 57, 65, 70, 97, 102, 13, 58],
     [127, -64, -33, -32, -17, -16, -9, -8],
     [-5, -4, -3, -2, 8, 10, 31, 48],
     [57, 65, 70, 97, 102, 13, 58, 127],
     [-64, -33, -32, -17, -16, -9, -8, -5],
     [-4, -3, -2, 8, 10, 31, 48, 57],
     [65, 70, 97, 102, 13, 58, 127, -64],
     [-33, -32, -17, -16, -9, -8, -5, -4],
     [-3, -2, 8, 10, 31, 48, 57, 65],
     [70, 97, 102, 13, 58, 127, -64, -33],
     [-32, -17, -16, -9, -8, -5, -4, -3],
     [-2, 8, 10, 31, 13, 58, 127, -64],
     [-33, -32, -17, -16, -9, -8, -5, -4],
     [-3, -2, 8, 10, 31, 48, 57, 65],
     [70, 97, 102, 13, 58, 127, -64, -33],
     [-32, -17, -16, -9, -8, -5, -4, -3],
     [-2, 8, 10, 31, 48, 57, 65, 70]]"

definition smp_trans_keys_54 :: "int list list" where
  "smp_trans_keys_54 =
    [[97, 102, 13, 58, 127, -64, -33, -32],
     [-17, -16, -9, -8, -5, -4, -3, -2],
     [8, 10, 31, 48, 57, 65, 70, 97],
     [102, 13, 58, 127, -64, -33, -32, -17],
     [-16, -9, -8, -5, -4, -3, -2, 8],
     [10, 31, 48, 57, 65, 70, 97, 102],
     [13, 58, 127, -64, -33, -32, -17, -16],
     [-9, -8, -5, -4, -3, -2, 8, 10],
     [31, 13, 58, 127, -64, -33, -32, -17],
     [-16, -9, -8, -5, -4, -3, -2, 8],
     [10, 31, 48, 57, 65, 70, 97, 102],
     [13, 58, 127, -64, -33, -32, -17, -16],
     [-9, -8, -5, -4, -3, -2, 8, 10],
     [31, 48, 57, 65, 70, 97, 102, 13],
     [58, 127, -64, -33, -32, -17, -16, -9],
     [-8, -5, -4, -3, -2, 8, 10, 31],
     [48, 57, 65, 70, 97, 102, 13, 58],
     [127, -64, -33, -32, -17, -16, -9, -8],
     [-5, -4, -3, -2, 8, 10, 31, 48],
     [57, 65, 70, 97, 102, 13, 58, 127],
     [-64, -33, -32, -17, -16, -9, -8, -5],
     [-4, -3, -2, 8, 10, 31, 13, 58],
     [127, -64, -33, -32, -17, -16, -9, -8],
     [-5, -4, -3, -2, 8, 10, 31, 48],
     [57, 65, 70, 97, 102, 13, 58, 127],
     [-64, -33, -32, -17, -16, -9, -8, -5],
     [-4, -3, -2, 8, 10, 31, 48, 57],
     [65, 70, 97, 102, 13, 58, 127, -64],
     [-33, -32, -17, -16, -9, -8, -5, -4],
     [-3, -2, 8, 10, 31, 48, 57, 65],
     [70, 97, 102, 13, 58, 127, -64, -33],
     [-32, -17, -16, -9, -8, -5, -4, -3],
     [-2, 8, 10, 31, 48, 57, 65, 70],
     [97, 102, 13, 58, 127, -64, -33, -32],
     [-17, -16, -9, -8, -5, -4, -3, -2],
     [8, 10, 31, 13, 48, 49, 50, 58],
     [127, -64, -33, -32, -17, -16, -9, -8],
     [-5, -4, -3, -2, 8, 10, 31, 51],
     [57, 65, 70, 97, 102, 13, 46, 58],
     [127, -64, -33, -32, -17, -16, -9, -8],
     [-5, -4, -3, -2, 8, 10, 31, 48],
     [57, 65, 70, 97, 102, 13, 48, 49],
     [50, 127, -64, -33, -32, -17, -16, -9],
     [-8, -5, -4, -3, -2, 8, 10, 31],
     [51, 57, 13, 46, 127, -64, -33, -32],
     [-17, -16, -9, -8, -5, -4, -3, -2],
     [8, 10, 31, 13, 48, 49, 50, 127],
     [-64, -33, -32, -17, -16, -9, -8, -5],
     [-4, -3, -2, 8, 10, 31, 51, 57],
     [13, 46, 127, -64, -33, -32, -17, -16],
     [-9, -8, -5, -4, -3, -2, 8, 10],
     [31, 13, 48, 49, 50, 127, -64, -33],
     [-32, -17, -16, -9, -8, -5, -4, -3],
     [-2, 8, 10, 31, 51, 57, 13, 93],
     [127, -64, -33, -32, -17, -16, -9, -8],
     [-5, -4, -3, -2, 8, 10, 31, 9],
     [13, 32, 44, 58, 59, 127, -64, -33],
     [-32, -17, -16, -9, -8, -5, -4, -3],
     [-2, 31, 13, 93, 127, -64, -33, -32],
     [-17, -16, -9, -8, -5, -4, -3, -2],
     [8, 10, 31, 48, 57, 13, 93, 127],
     [-64, -33, -32, -17, -16, -9, -8, -5],
     [-4, -3, -2, 8, 10, 31, 48, 57],
     [13, 53, 93, 127, -64, -33, -32, -17],
     [-16, -9, -8, -5, -4, -3, -2, 8],
     [10, 31, 48, 52, 54, 57, 13, 93],
     [127, -64, -33, -32, -17, -16, -9, -8],
     [-5, -4, -3, -2, 8, 10, 31, 48],
     [53, 13, 46, 127, -64, -33, -32, -17],
     [-16, -9, -8, -5, -4, -3, -2, 8],
     [10, 31, 48, 57, 13, 46, 127, -64],
     [-33, -32, -17, -16, -9, -8, -5, -4],
     [-3, -2, 8, 10, 31, 48, 57, 13],
     [46, 53, 127, -64, -33, -32, -17, -16],
     [-9, -8, -5, -4, -3, -2, 8, 10],
     [31, 48, 52, 54, 57, 13, 46, 127],
     [-64, -33, -32, -17, -16, -9, -8, -5],
     [-4, -3, -2, 8, 10, 31, 48, 53],
     [13, 46, 127, -64, -33, -32, -17, -16],
     [-9, -8, -5, -4, -3, -2, 8, 10],
     [31, 48, 57, 13, 46, 127, -64, -33],
     [-32, -17, -16, -9, -8, -5, -4, -3],
     [-2, 8, 10, 31, 48, 57, 13, 46],
     [53, 127, -64, -33, -32, -17, -16, -9],
     [-8, -5, -4, -3, -2, 8, 10, 31],
     [48, 52, 54, 57, 13, 46, 127, -64],
     [-33, -32, -17, -16, -9, -8, -5, -4],
     [-3, -2, 8, 10, 31, 48, 53, 13],
     [58, 127, -64, -33, -32, -17, -16, -9],
     [-8, -5, -4, -3, -2, 8, 10, 31],
     [48, 57, 65, 70, 97, 102, 13, 58],
     [127, -64, -33, -32, -17, -16, -9, -8],
     [-5, -4, -3, -2, 8, 10, 31, 48],
     [57, 65, 70, 97, 102, 13, 58, 127],
     [-64, -33, -32, -17, -16, -9, -8, -5],
     [-4, -3, -2, 8, 10, 31, 13, 58],
     [127, -64, -33, -32, -17, -16, -9, -8],
     [-5, -4, -3, -2, 8, 10, 31, 48],
     [57, 65, 70, 97, 102, 13, 93, 127],
     [-64, -33, -32, -17, -16, -9, -8, -5],
     [-4, -3, -2, 8, 10, 31, 48, 57],
     [65, 70, 97, 102, 13, 93, 127, -64],
     [-33, -32, -17, -16, -9, -8, -5, -4],
     [-3, -2, 8, 10, 31, 48, 57, 65],
     [70, 97, 102, 13, 93, 127, -64, -33],
     [-32, -17, -16, -9, -8, -5, -4, -3],
     [-2, 8, 10, 31, 48, 57, 65, 70],
     [97, 102, 13, 46, 58, 127, -64, -33],
     [-32, -17, -16, -9, -8, -5, -4, -3],
     [-2, 8, 10, 31, 48, 57, 65, 70],
     [97, 102, 13, 46, 58, 127, -64, -33],
     [-32, -17, -16, -9, -8, -5, -4, -3],
     [-2, 8, 10, 31, 48, 57, 65, 70],
     [97, 102, 13, 46, 58, 127, -64, -33],
     [-32, -17, -16, -9, -8, -5, -4, -3],
     [-2, 8, 10, 31, 48, 57, 65, 70],
     [97, 102, 13, 46, 53, 58, 127, -64],
     [-33, -32, -17, -16, -9, -8, -5, -4],
     [-3, -2, 8, 10, 31, 48, 52, 54],
     [57, 65, 70, 97, 102, 13, 46, 58],
     [127, -64, -33, -32, -17, -16, -9, -8],
     [-5, -4, -3, -2, 8, 10, 31, 48],
     [53, 54, 57, 65, 70, 97, 102, 13],
     [46, 58, 127, -64, -33, -32, -17, -16],
     [-9, -8, -5, -4, -3, -2, 8, 10],
     [31, 48, 57, 65, 70, 97, 102, 13],
     [46, 58, 127, -64, -33, -32, -17, -16],
     [-9, -8, -5, -4, -3, -2, 8, 10],
     [31, 48, 57, 65, 70, 97, 102, 13],
     [93, 127, -64, -33, -32, -17, -16, -9],
     [-8, -5, -4, -3, -2, 8, 10, 31],
     [48, 57, 65, 70, 97, 102, 13, 58],
     [127, -64, -33, -32, -17, -16, -9, -8],
     [-5, -4, -3, -2, 8, 10, 31, 48],
     [57, 65, 70, 97, 102, 13, 48, 49],
     [50, 93, 127, -64, -33, -32, -17, -16],
     [-9, -8, -5, -4, -3, -2, 8, 10],
     [31, 51, 57, 65, 70, 97, 102, 13],
     [46, 58, 93, 127, -64, -33, -32, -17],
     [-16, -9, -8, -5, -4, -3, -2, 8],
     [10, 31, 48, 57, 65, 70, 97, 102],
     [13, 58, 93, 127, -64, -33, -32, -17],
     [-16, -9, -8, -5, -4, -3, -2, 8],
     [10, 31, 48, 57, 65, 70, 97, 102],
     [13, 58, 93, 127, -64, -33, -32, -17],
     [-16, -9, -8, -5, -4, -3, -2, 8],
     [10, 31, 48, 57, 65, 70, 97, 102],
     [13, 58, 93, 127, -64, -33, -32, -17],
     [-16, -9, -8, -5, -4, -3, -2, 8],
     [10, 31, 13, 127, -64, -33, -32, -17]]"

definition smp_trans_keys_55 :: "int list list" where
  "smp_trans_keys_55 =
    [[-16, -9, -8, -5, -4, -3, -2, 8],
     [10, 31, 48, 57, 65, 70, 97, 102],
     [13, 46, 58, 93, 127, -64, -33, -32],
     [-17, -16, -9, -8, -5, -4, -3, -2],
     [8, 10, 31, 48, 57, 65, 70, 97],
     [102, 13, 46, 58, 93, 127, -64, -33],
     [-32, -17, -16, -9, -8, -5, -4, -3],
     [-2, 8, 10, 31, 48, 57, 65, 70],
     [97, 102, 13, 46, 58, 93, 127, -64],
     [-33, -32, -17, -16, -9, -8, -5, -4],
     [-3, -2, 8, 10, 31, 48, 57, 65],
     [70, 97, 102, 13, 46, 53, 58, 93],
     [127, -64, -33, -32, -17, -16, -9, -8],
     [-5, -4, -3, -2, 8, 10, 31, 48],
     [52, 54, 57, 65, 70, 97, 102, 13],
     [46, 58, 93, 127, -64, -33, -32, -17],
     [-16, -9, -8, -5, -4, -3, -2, 8],
     [10, 31, 48, 53, 54, 57, 65, 70],
     [97, 102, 13, 46, 58, 93, 127, -64],
     [-33, -32, -17, -16, -9, -8, -5, -4],
     [-3, -2, 8, 10, 31, 48, 57, 65],
     [70, 97, 102, 13, 46, 58, 93, 127],
     [-64, -33, -32, -17, -16, -9, -8, -5],
     [-4, -3, -2, 8, 10, 31, 48, 57],
     [65, 70, 97, 102, 13, 58, 93, 127],
     [-64, -33, -32, -17, -16, -9, -8, -5],
     [-4, -3, -2, 8, 10, 31, 48, 57],
     [65, 70, 97, 102, 13, 48, 49, 50],
     [93, 127, -64, -33, -32, -17, -16, -9],
     [-8, -5, -4, -3, -2, 8, 10, 31],
     [51, 57, 65, 70, 97, 102, 13, 46],
     [58, 93, 127, -64, -33, -32, -17, -16],
     [-9, -8, -5, -4, -3, -2, 8, 10],
     [31, 48, 57, 65, 70, 97, 102, 13],
     [58, 93, 127, -64, -33, -32, -17, -16],
     [-9, -8, -5, -4, -3, -2, 8, 10],
     [31, 48, 57, 65, 70, 97, 102, 13],
     [58, 93, 127, -64, -33, -32, -17, -16],
     [-9, -8, -5, -4, -3, -2, 8, 10],
     [31, 48, 57, 65, 70, 97, 102, 13],
     [58, 93, 127, -64, -33, -32, -17, -16],
     [-9, -8, -5, -4, -3, -2, 8, 10],
     [31, 13, 48, 49, 50, 127, -64, -33],
     [-32, -17, -16, -9, -8, -5, -4, -3],
     [-2, 8, 10, 31, 51, 57, 65, 70],
     [97, 102, 13, 46, 58, 93, 127, -64],
     [-33, -32, -17, -16, -9, -8, -5, -4],
     [-3, -2, 8, 10, 31, 48, 57, 65],
     [70, 97, 102, 13, 46, 58, 93, 127],
     [-64, -33, -32, -17, -16, -9, -8, -5],
     [-4, -3, -2, 8, 10, 31, 48, 57],
     [65, 70, 97, 102, 13, 46, 58, 93],
     [127, -64, -33, -32, -17, -16, -9, -8],
     [-5, -4, -3, -2, 8, 10, 31, 48],
     [57, 65, 70, 97, 102, 13, 46, 53],
     [58, 93, 127, -64, -33, -32, -17, -16],
     [-9, -8, -5, -4, -3, -2, 8, 10],
     [31, 48, 52, 54, 57, 65, 70, 97],
     [102, 13, 46, 58, 93, 127, -64, -33],
     [-32, -17, -16, -9, -8, -5, -4, -3],
     [-2, 8, 10, 31, 48, 53, 54, 57],
     [65, 70, 97, 102, 13, 46, 58, 93],
     [127, -64, -33, -32, -17, -16, -9, -8],
     [-5, -4, -3, -2, 8, 10, 31, 48],
     [57, 65, 70, 97, 102, 13, 46, 58],
     [93, 127, -64, -33, -32, -17, -16, -9],
     [-8, -5, -4, -3, -2, 8, 10, 31],
     [48, 57, 65, 70, 97, 102, 13, 58],
     [93, 127, -64, -33, -32, -17, -16, -9],
     [-8, -5, -4, -3, -2, 8, 10, 31],
     [48, 57, 65, 70, 97, 102, 13, 48],
     [49, 50, 93, 127, -64, -33, -32, -17],
     [-16, -9, -8, -5, -4, -3, -2, 8],
     [10, 31, 51, 57, 65, 70, 97, 102],
     [13, 46, 58, 93, 127, -64, -33, -32],
     [-17, -16, -9, -8, -5, -4, -3, -2],
     [8, 10, 31, 48, 57, 65, 70, 97],
     [102, 13, 58, 93, 127, -64, -33, -32],
     [-17, -16, -9, -8, -5, -4, -3, -2],
     [8, 10, 31, 48, 57, 65, 70, 97],
     [102, 13, 58, 93, 127, -64, -33, -32],
     [-17, -16, -9, -8, -5, -4, -3, -2],
     [8, 10, 31, 48, 57, 65, 70, 97],
     [102, 13, 58, 93, 127, -64, -33, -32],
     [-17, -16, -9, -8, -5, -4, -3, -2],
     [8, 10, 31, 13, 48, 49, 50, 127],
     [-64, -33, -32, -17, -16, -9, -8, -5],
     [-4, -3, -2, 8, 10, 31, 51, 57],
     [65, 70, 97, 102, 13, 46, 58, 93],
     [127, -64, -33, -32, -17, -16, -9, -8],
     [-5, -4, -3, -2, 8, 10, 31, 48],
     [57, 65, 70, 97, 102, 13, 46, 58],
     [93, 127, -64, -33, -32, -17, -16, -9],
     [-8, -5, -4, -3, -2, 8, 10, 31],
     [48, 57, 65, 70, 97, 102, 13, 46],
     [58, 93, 127, -64, -33, -32, -17, -16],
     [-9, -8, -5, -4, -3, -2, 8, 10],
     [31, 48, 57, 65, 70, 97, 102, 13],
     [46, 53, 58, 93, 127, -64, -33, -32],
     [-17, -16, -9, -8, -5, -4, -3, -2],
     [8, 10, 31, 48, 52, 54, 57, 65],
     [70, 97, 102, 13, 46, 58, 93, 127],
     [-64, -33, -32, -17, -16, -9, -8, -5],
     [-4, -3, -2, 8, 10, 31, 48, 53],
     [54, 57, 65, 70, 97, 102, 13, 46],
     [58, 93, 127, -64, -33, -32, -17, -16],
     [-9, -8, -5, -4, -3, -2, 8, 10],
     [31, 48, 57, 65, 70, 97, 102, 13],
     [46, 58, 93, 127, -64, -33, -32, -17],
     [-16, -9, -8, -5, -4, -3, -2, 8],
     [10, 31, 48, 57, 65, 70, 97, 102],
     [13, 58, 93, 127, -64, -33, -32, -17],
     [-16, -9, -8, -5, -4, -3, -2, 8],
     [10, 31, 48, 57, 65, 70, 97, 102],
     [13, 48, 49, 50, 93, 127, -64, -33],
     [-32, -17, -16, -9, -8, -5, -4, -3],
     [-2, 8, 10, 31, 51, 57, 65, 70],
     [97, 102, 13, 46, 58, 93, 127, -64],
     [-33, -32, -17, -16, -9, -8, -5, -4],
     [-3, -2, 8, 10, 31, 48, 57, 65],
     [70, 97, 102, 13, 58, 93, 127, -64],
     [-33, -32, -17, -16, -9, -8, -5, -4],
     [-3, -2, 8, 10, 31, 48, 57, 65],
     [70, 97, 102, 13, 58, 93, 127, -64],
     [-33, -32, -17, -16, -9, -8, -5, -4],
     [-3, -2, 8, 10, 31, 48, 57, 65],
     [70, 97, 102, 13, 58, 93, 127, -64],
     [-33, -32, -17, -16, -9, -8, -5, -4],
     [-3, -2, 8, 10, 31, 13, 48, 49],
     [50, 127, -64, -33, -32, -17, -16, -9],
     [-8, -5, -4, -3, -2, 8, 10, 31],
     [51, 57, 65, 70, 97, 102, 13, 46],
     [58, 93, 127, -64, -33, -32, -17, -16],
     [-9, -8, -5, -4, -3, -2, 8, 10],
     [31, 48, 57, 65, 70, 97, 102, 13],
     [46, 58, 93, 127, -64, -33, -32, -17],
     [-16, -9, -8, -5, -4, -3, -2, 8],
     [10, 31, 48, 57, 65, 70, 97, 102],
     [13, 46, 58, 93, 127, -64, -33, -32],
     [-17, -16, -9, -8, -5, -4, -3, -2],
     [8, 10, 31, 48, 57, 65, 70, 97],
     [102, 13, 46, 53, 58, 93, 127, -64],
     [-33, -32, -17, -16, -9, -8, -5, -4],
     [-3, -2, 8, 10, 31, 48, 52, 54],
     [57, 65, 70, 97, 102, 13, 46, 58],
     [93, 127, -64, -33, -32, -17, -16, -9],
     [-8, -5, -4, -3, -2, 8, 10, 31],
     [48, 53, 54, 57, 65, 70, 97, 102],
     [13, 46, 58, 93, 127, -64, -33, -32],
     [-17, -16, -9, -8, -5, -4, -3, -2]]"

definition smp_trans_keys_56 :: "int list list" where
  "smp_trans_keys_56 =
    [[8, 10, 31, 48, 57, 65, 70, 97],
     [102, 13, 46, 58, 93, 127, -64, -33],
     [-32, -17, -16, -9, -8, -5, -4, -3],
     [-2, 8, 10, 31, 48, 57, 65, 70],
     [97, 102, 13, 58, 93, 127, -64, -33],
     [-32, -17, -16, -9, -8, -5, -4, -3],
     [-2, 8, 10, 31, 48, 57, 65, 70],
     [97, 102, 13, 48, 49, 50, 93, 127],
     [-64, -33, -32, -17, -16, -9, -8, -5],
     [-4, -3, -2, 8, 10, 31, 51, 57],
     [65, 70, 97, 102, 13, 46, 58, 93],
     [127, -64, -33, -32, -17, -16, -9, -8],
     [-5, -4, -3, -2, 8, 10, 31, 48],
     [57, 65, 70, 97, 102, 13, 58, 93],
     [127, -64, -33, -32, -17, -16, -9, -8],
     [-5, -4, -3, -2, 8, 10, 31, 48],
     [57, 65, 70, 97, 102, 13, 58, 93],
     [127, -64, -33, -32, -17, -16, -9, -8],
     [-5, -4, -3, -2, 8, 10, 31, 48],
     [57, 65, 70, 97, 102, 13, 58, 93],
     [127, -64, -33, -32, -17, -16, -9, -8],
     [-5, -4, -3, -2, 8, 10, 31, 13],
     [48, 49, 50, 127, -64, -33, -32, -17],
     [-16, -9, -8, -5, -4, -3, -2, 8],
     [10, 31, 51, 57, 65, 70, 97, 102],
     [13, 46, 58, 93, 127, -64, -33, -32],
     [-17, -16, -9, -8, -5, -4, -3, -2],
     [8, 10, 31, 48, 57, 65, 70, 97],
     [102, 13, 46, 58, 93, 127, -64, -33],
     [-32, -17, -16, -9, -8, -5, -4, -3],
     [-2, 8, 10, 31, 48, 57, 65, 70],
     [97, 102, 13, 46, 58, 93, 127, -64],
     [-33, -32, -17, -16, -9, -8, -5, -4],
     [-3, -2, 8, 10, 31, 48, 57, 65],
     [70, 97, 102, 13, 46, 53, 58, 93],
     [127, -64, -33, -32, -17, -16, -9, -8],
     [-5, -4, -3, -2, 8, 10, 31, 48],
     [52, 54, 57, 65, 70, 97, 102, 13],
     [46, 58, 93, 127, -64, -33, -32, -17],
     [-16, -9, -8, -5, -4, -3, -2, 8],
     [10, 31, 48, 53, 54, 57, 65, 70],
     [97, 102, 13, 46, 58, 93, 127, -64],
     [-33, -32, -17, -16, -9, -8, -5, -4],
     [-3, -2, 8, 10, 31, 48, 57, 65],
     [70, 97, 102, 13, 46, 58, 93, 127],
     [-64, -33, -32, -17, -16, -9, -8, -5],
     [-4, -3, -2, 8, 10, 31, 48, 57],
     [65, 70, 97, 102, 13, 58, 93, 127],
     [-64, -33, -32, -17, -16, -9, -8, -5],
     [-4, -3, -2, 8, 10, 31, 48, 57],
     [65, 70, 97, 102, 13, 58, 127, -64],
     [-33, -32, -17, -16, -9, -8, -5, -4],
     [-3, -2, 8, 10, 31, 13, 48, 49],
     [50, 93, 127, -64, -33, -32, -17, -16],
     [-9, -8, -5, -4, -3, -2, 8, 10],
     [31, 51, 57, 65, 70, 97, 102, 13],
     [46, 58, 93, 127, -64, -33, -32, -17],
     [-16, -9, -8, -5, -4, -3, -2, 8],
     [10, 31, 48, 57, 65, 70, 97, 102],
     [13, 58, 93, 127, -64, -33, -32, -17],
     [-16, -9, -8, -5, -4, -3, -2, 8],
     [10, 31, 48, 57, 65, 70, 97, 102],
     [13, 58, 93, 127, -64, -33, -32, -17],
     [-16, -9, -8, -5, -4, -3, -2, 8],
     [10, 31, 48, 57, 65, 70, 97, 102],
     [13, 58, 93, 127, -64, -33, -32, -17],
     [-16, -9, -8, -5, -4, -3, -2, 8],
     [10, 31, 13, 48, 49, 50, 127, -64],
     [-33, -32, -17, -16, -9, -8, -5, -4],
     [-3, -2, 8, 10, 31, 51, 57, 65],
     [70, 97, 102, 13, 46, 58, 93, 127],
     [-64, -33, -32, -17, -16, -9, -8, -5],
     [-4, -3, -2, 8, 10, 31, 48, 57],
     [65, 70, 97, 102, 13, 46, 58, 93],
     [127, -64, -33, -32, -17, -16, -9, -8],
     [-5, -4, -3, -2, 8, 10, 31, 48],
     [57, 65, 70, 97, 102, 13, 46, 58],
     [93, 127, -64, -33, -32, -17, -16, -9],
     [-8, -5, -4, -3, -2, 8, 10, 31],
     [48, 57, 65, 70, 97, 102, 13, 46],
     [53, 58, 93, 127, -64, -33, -32, -17],
     [-16, -9, -8, -5, -4, -3, -2, 8],
     [10, 31, 48, 52, 54, 57, 65, 70],
     [97, 102, 13, 46, 58, 93, 127, -64],
     [-33, -32, -17, -16, -9, -8, -5, -4],
     [-3, -2, 8, 10, 31, 48, 53, 54],
     [57, 65, 70, 97, 102, 13, 46, 58],
     [93, 127, -64, -33, -32, -17, -16, -9],
     [-8, -5, -4, -3, -2, 8, 10, 31],
     [48, 57, 65, 70, 97, 102, 13, 46],
     [58, 93, 127, -64, -33, -32, -17, -16],
     [-9, -8, -5, -4, -3, -2, 8, 10],
     [31, 48, 57, 65, 70, 97, 102, 13],
     [58, 93, 127, -64, -33, -32, -17, -16],
     [-9, -8, -5, -4, -3, -2, 8, 10],
     [31, 48, 57, 65, 70, 97, 102, 13],
     [33, 37, 45, 46, 47, 58, 61, 64],
     [95, 126, 127, -64, -33, -32, -17, -16],
     [-9, -8, -5, -4, -3, -2, 8, 10],
     [31, 35, 43, 48, 57, 65, 90, 97],
     [122, 13, 33, 37, 45, 58, 61, 64],
     [95, 126, 127, -64, -33, -32, -17, -16],
     [-9, -8, -5, -4, -3, -2, 8, 10],
     [31, 35, 43, 46, 47, 48, 57, 65],
     [90, 97, 122, 13, 33, 37, 45, 46],
     [47, 58, 61, 64, 95, 126, 127, -64],
     [-33, -32, -17, -16, -9, -8, -5, -4],
     [-3, -2, 8, 10, 31, 35, 43, 48],
     [57, 65, 90, 97, 122, 13, 33, 37],
     [58, 61, 64, 95, 126, 127, -64, -33],
     [-32, -17, -16, -9, -8, -5, -4, -3],
     [-2, 8, 10, 31, 35, 43, 45, 47],
     [48, 57, 65, 90, 97, 122, 9, 13],
     [32, 33, 37, 44, 45, 46, 58, 59],
     [61, 64, 95, 126, 127, -64, -33, -32],
     [-17, -16, -9, -8, -5, -4, -3, -2],
     [31, 35, 47, 48, 57, 65, 90, 97],
     [122, 13, 33, 37, 45, 58, 61, 64],
     [95, 126, 127, -64, -33, -32, -17, -16],
     [-9, -8, -5, -4, -3, -2, 8, 10],
     [31, 35, 43, 46, 47, 48, 57, 65],
     [90, 97, 122, 9, 13, 32, 33, 37],
     [44, 58, 59, 61, 64, 95, 126, 127],
     [-64, -33, -32, -17, -16, -9, -8, -5],
     [-4, -3, -2, 31, 35, 47, 48, 57],
     [65, 90, 97, 122, 13, 33, 37, 48],
     [54, 61, 64, 95, 126, 127, -64, -33],
     [-32, -17, -16, -9, -8, -5, -4, -3],
     [-2, 8, 10, 31, 36, 43, 45, 46],
     [49, 53, 55, 57, 65, 90, 97, 122],
     [13, 33, 37, 48, 61, 64, 95, 126],
     [127, -64, -33, -32, -17, -16, -9, -8],
     [-5, -4, -3, -2, 8, 10, 31, 36],
     [43, 45, 46, 49, 57, 65, 90, 97],
     [122, 13, 33, 37, 48, 61, 64, 95],
     [126, 127, -64, -33, -32, -17, -16, -9],
     [-8, -5, -4, -3, -2, 8, 10, 31],
     [36, 43, 45, 46, 49, 57, 65, 90],
     [97, 122, 13, 33, 37, 48, 61, 64],
     [95, 126, 127, -64, -33, -32, -17, -16],
     [-9, -8, -5, -4, -3, -2, 8, 10],
     [31, 36, 43, 45, 46, 49, 57, 65],
     [90, 97, 122, 9, 13, 32, 33, 37],
     [44, 59, 61, 64, 95, 126, 127, -64],
     [-33, -32, -17, -16, -9, -8, -5, -4],
     [-3, -2, 31, 36, 46, 48, 57, 65],
     [90, 97, 122, 9, 13, 32, 33, 37],
     [44, 59, 61, 64, 95, 126, 127, -64],
     [-33, -32, -17, -16, -9, -8, -5, -4],
     [-3, -2, 31, 36, 46, 48, 57, 65]]"

definition smp_trans_keys_57 :: "int list list" where
  "smp_trans_keys_57 =
    [[90, 97, 122, 9, 13, 32, 33, 37],
     [44, 59, 61, 64, 95, 126, 127, -64],
     [-33, -32, -17, -16, -9, -8, -5, -4],
     [-3, -2, 31, 36, 46, 48, 57, 65],
     [90, 97, 122, 9, 13, 32, 33, 37],
     [44, 59, 61, 64, 95, 126, 127, -64],
     [-33, -32, -17, -16, -9, -8, -5, -4],
     [-3, -2, 31, 36, 46, 48, 57, 65],
     [90, 97, 122, 9, 13, 32, 33, 37],
     [44, 59, 61, 64, 95, 126, 127, -64],
     [-33, -32, -17, -16, -9, -8, -5, -4],
     [-3, -2, 31, 36, 46, 48, 57, 65],
     [90, 97, 122, 9, 13, 32, 33, 37],
     [44, 53, 59, 61, 64, 95, 126, 127],
     [-64, -33, -32, -17, -16, -9, -8, -5],
     [-4, -3, -2, 31, 36, 46, 48, 52],
     [54, 57, 65, 90, 97, 122, 9, 13],
     [32, 33, 37, 44, 53, 59, 61, 64],
     [95, 126, 127, -64, -33, -32, -17, -16],
     [-9, -8, -5, -4, -3, -2, 31, 36],
     [46, 48, 52, 54, 57, 65, 90, 97],
     [122, 9, 13, 32, 33, 37, 44, 51],
     [59, 61, 64, 95, 126, 127, -64, -33],
     [-32, -17, -16, -9, -8, -5, -4, -3],
     [-2, 31, 36, 46, 48, 50, 52, 57],
     [65, 90, 97, 122, 9, 13, 32, 33],
     [37, 44, 59, 61, 64, 95, 126, 127],
     [-64, -33, -32, -17, -16, -9, -8, -5],
     [-4, -3, -2, 31, 36, 46, 48, 53],
     [54, 57, 65, 90, 97, 122, 13, 33],
     [37, 48, 49, 50, 58, 61, 64, 95],
     [126, 127, -64, -33, -32, -17, -16, -9],
     [-8, -5, -4, -3, -2, 8, 10, 31],
     [35, 43, 45, 47, 51, 57, 65, 90],
     [97, 122, 13, 33, 37, 45, 46, 47],
     [58, 61, 64, 95, 126, 127, -64, -33],
     [-32, -17, -16, -9, -8, -5, -4, -3],
     [-2, 8, 10, 31, 35, 43, 48, 57],
     [65, 90, 97, 122, 13, 33, 37, 48],
     [49, 50, 58, 61, 64, 95, 126, 127],
     [-64, -33, -32, -17, -16, -9, -8, -5],
     [-4, -3, -2, 8, 10, 31, 35, 43],
     [45, 47, 51, 57, 65, 90, 97, 122],
     [13, 33, 37, 45, 46, 47, 58, 61],
     [64, 95, 126, 127, -64, -33, -32, -17],
     [-16, -9, -8, -5, -4, -3, -2, 8],
     [10, 31, 35, 43, 48, 57, 65, 90],
     [97, 122, 13, 33, 37, 48, 49, 50],
     [58, 61, 64, 95, 126, 127, -64, -33],
     [-32, -17, -16, -9, -8, -5, -4, -3],
     [-2, 8, 10, 31, 35, 43, 45, 47],
     [51, 57, 65, 90, 97, 122, 9, 13],
     [32, 33, 37, 44, 45, 46, 58, 59],
     [61, 64, 95, 126, 127, -64, -33, -32],
     [-17, -16, -9, -8, -5, -4, -3, -2],
     [31, 35, 47, 48, 57, 65, 90, 97],
     [122, 9, 13, 32, 33, 37, 44, 45],
     [46, 58, 59, 61, 64, 95, 126, 127],
     [-64, -33, -32, -17, -16, -9, -8, -5],
     [-4, -3, -2, 31, 35, 47, 48, 57],
     [65, 90, 97, 122, 9, 13, 32, 33],
     [37, 44, 45, 46, 58, 59, 61, 64],
     [95, 126, 127, -64, -33, -32, -17, -16],
     [-9, -8, -5, -4, -3, -2, 31, 35],
     [47, 48, 57, 65, 90, 97, 122, 9],
     [13, 32, 33, 37, 44, 45, 46, 53],
     [58, 59, 61, 64, 95, 126, 127, -64],
     [-33, -32, -17, -16, -9, -8, -5, -4],
     [-3, -2, 31, 35, 47, 48, 52, 54],
     [57, 65, 90, 97, 122, 9, 13, 32],
     [33, 37, 44, 45, 46, 58, 59, 61],
     [64, 95, 126, 127, -64, -33, -32, -17],
     [-16, -9, -8, -5, -4, -3, -2, 31],
     [35, 47, 48, 53, 54, 57, 65, 90],
     [97, 122, 13, 33, 37, 45, 46, 47],
     [58, 61, 64, 95, 126, 127, -64, -33],
     [-32, -17, -16, -9, -8, -5, -4, -3],
     [-2, 8, 10, 31, 35, 43, 48, 57],
     [65, 90, 97, 122, 13, 33, 37, 45],
     [46, 47, 58, 61, 64, 95, 126, 127],
     [-64, -33, -32, -17, -16, -9, -8, -5],
     [-4, -3, -2, 8, 10, 31, 35, 43],
     [48, 57, 65, 90, 97, 122, 13, 33],
     [37, 45, 46, 47, 53, 58, 61, 64],
     [95, 126, 127, -64, -33, -32, -17, -16],
     [-9, -8, -5, -4, -3, -2, 8, 10],
     [31, 35, 43, 48, 52, 54, 57, 65],
     [90, 97, 122, 13, 33, 37, 45, 46],
     [47, 58, 61, 64, 95, 126, 127, -64],
     [-33, -32, -17, -16, -9, -8, -5, -4],
     [-3, -2, 8, 10, 31, 35, 43, 48],
     [53, 54, 57, 65, 90, 97, 122, 13],
     [33, 37, 45, 46, 47, 58, 61, 64],
     [95, 126, 127, -64, -33, -32, -17, -16],
     [-9, -8, -5, -4, -3, -2, 8, 10],
     [31, 35, 43, 48, 57, 65, 90, 97],
     [122, 13, 33, 37, 45, 46, 47, 58],
     [61, 64, 95, 126, 127, -64, -33, -32],
     [-17, -16, -9, -8, -5, -4, -3, -2],
     [8, 10, 31, 35, 43, 48, 57, 65],
     [90, 97, 122, 13, 33, 37, 45, 46],
     [47, 53, 58, 61, 64, 95, 126, 127],
     [-64, -33, -32, -17, -16, -9, -8, -5],
     [-4, -3, -2, 8, 10, 31, 35, 43],
     [48, 52, 54, 57, 65, 90, 97, 122],
     [13, 33, 37, 45, 46, 47, 58, 61],
     [64, 95, 126, 127, -64, -33, -32, -17],
     [-16, -9, -8, -5, -4, -3, -2, 8],
     [10, 31, 35, 43, 48, 53, 54, 57],
     [65, 90, 97, 122, 13, 33, 37, 45],
     [46, 47, 58, 61, 64, 95, 126, 127],
     [-64, -33, -32, -17, -16, -9, -8, -5],
     [-4, -3, -2, 8, 10, 31, 35, 43],
     [48, 57, 65, 90, 97, 122, 13, 33],
     [37, 45, 46, 47, 58, 61, 64, 95],
     [126, 127, -64, -33, -32, -17, -16, -9],
     [-8, -5, -4, -3, -2, 8, 10, 31],
     [35, 43, 48, 57, 65, 90, 97, 122],
     [13, 33, 37, 45, 46, 47, 53, 58],
     [61, 64, 95, 126, 127, -64, -33, -32],
     [-17, -16, -9, -8, -5, -4, -3, -2],
     [8, 10, 31, 35, 43, 48, 52, 54],
     [57, 65, 90, 97, 122, 13, 33, 37],
     [45, 46, 47, 58, 61, 64, 95, 126],
     [127, -64, -33, -32, -17, -16, -9, -8],
     [-5, -4, -3, -2, 8, 10, 31, 35],
     [43, 48, 53, 54, 57, 65, 90, 97],
     [122, 9, 13, 32, 33, 37, 39, 58],
     [60, 126, 127, -64, -33, -32, -17, -16],
     [-9, -8, -5, -4, -3, -2, 31, 42],
     [43, 45, 46, 48, 57, 65, 90, 95],
     [122, 13, 33, 36, 37, 63, 93, 95],
     [126, 127, -64, -33, -32, -17, -16, -9],
     [-8, -5, -4, -3, -2, 8, 10, 31],
     [39, 43, 45, 58, 65, 91, 97, 122],
     [13, 33, 36, 37, 61, 63, 93, 95],
     [126, 127, -64, -33, -32, -17, -16, -9],
     [-8, -5, -4, -3, -2, 8, 10, 31],
     [39, 43, 45, 58, 65, 91, 97, 122],
     [13, 127, -64, -33, -32, -17, -16, -9],
     [-8, -5, -4, -3, -2, 8, 10, 31],
     [48, 57, 65, 70, 97, 102, 13, 127],
     [-64, -33, -32, -17, -16, -9, -8, -5],
     [-4, -3, -2, 8, 10, 31, 48, 57],
     [65, 70, 97, 102, 13, 33, 37, 38],
     [62, 63, 93, 95, 126, 127, -64, -33],
     [-32, -17, -16, -9, -8, -5, -4, -3],
     [-2, 8, 10, 31, 36, 43, 45, 58],
     [65, 91, 97, 122, 13, 127, -64, -33],
     [-32, -17, -16, -9, -8, -5, -4, -3]]"

definition smp_trans_keys_58 :: "int list list" where
  "smp_trans_keys_58 =
    [[-2, 8, 10, 31, 48, 57, 65, 70],
     [97, 102, 13, 127, -64, -33, -32, -17],
     [-16, -9, -8, -5, -4, -3, -2, 8],
     [10, 31, 48, 57, 65, 70, 97, 102],
     [13, 33, 37, 93, 95, 126, 127, -64],
     [-33, -32, -17, -16, -9, -8, -5, -4],
     [-3, -2, 8, 10, 31, 36, 43, 45],
     [58, 65, 91, 97, 122, 13, 33, 37],
     [59, 61, 62, 63, 82, 93, 95, 114],
     [126, 127, -64, -33, -32, -17, -16, -9],
     [-8, -5, -4, -3, -2, 8, 10, 31],
     [36, 43, 45, 58, 65, 91, 97, 122],
     [9, 13, 32, 37, 44, 59, 61, 62],
     [63, 92, 94, 96, 127, -128, -65, -64],
     [-33, -32, -17, -16, -9, -8, -5, -4],
     [-3, -2, 31, 34, 35, 60, 64, 123],
     [125, 13, 33, 37, 39, 47, 58, 59],
     [61, 62, 63, 91, 93, 96, 126, 127],
     [-64, -33, -32, -17, -16, -9, -8, -5],
     [-4, -3, -2, 8, 10, 31, 36, 41],
     [42, 43, 45, 57, 65, 90, 95, 122],
     [13, 33, 37, 39, 47, 58, 59, 62],
     [63, 91, 93, 96, 126, 127, -64, -33],
     [-32, -17, -16, -9, -8, -5, -4, -3],
     [-2, 8, 10, 31, 36, 41, 42, 43],
     [45, 57, 65, 90, 95, 122, 13, 33],
     [37, 39, 59, 62, 63, 126, 127, -64],
     [-33, -32, -17, -16, -9, -8, -5, -4],
     [-3, -2, 8, 10, 31, 42, 43, 45],
     [46, 48, 57, 65, 70, 71, 90, 95],
     [96, 97, 102, 103, 122, 13, 33, 37],
     [39, 59, 62, 63, 126, 127, -64, -33],
     [-32, -17, -16, -9, -8, -5, -4, -3],
     [-2, 8, 10, 31, 42, 43, 45, 46],
     [48, 57, 65, 90, 95, 122, 13, 33],
     [37, 39, 59, 62, 63, 126, 127, -64],
     [-33, -32, -17, -16, -9, -8, -5, -4],
     [-3, -2, 8, 10, 31, 42, 43, 45],
     [46, 48, 57, 65, 70, 71, 90, 95],
     [96, 97, 102, 103, 122, 13, 33, 37],
     [59, 61, 62, 63, 66, 86, 93, 95],
     [98, 118, 126, 127, -64, -33, -32, -17],
     [-16, -9, -8, -5, -4, -3, -2, 8],
     [10, 31, 36, 43, 45, 58, 65, 91],
     [97, 122, 9, 13, 32, 37, 44, 59],
     [61, 62, 63, 92, 94, 96, 127, -128],
     [-65, -64, -33, -32, -17, -16, -9, -8],
     [-5, -4, -3, -2, 31, 34, 35, 60],
     [64, 123, 125, 13, 33, 37, 59, 61],
     [62, 63, 73, 93, 95, 105, 126, 127],
     [-64, -33, -32, -17, -16, -9, -8, -5],
     [-4, -3, -2, 8, 10, 31, 36, 43],
     [45, 58, 65, 91, 97, 122, 13, 33],
     [37, 59, 61, 62, 63, 68, 93, 95],
     [100, 126, 127, -64, -33, -32, -17, -16],
     [-9, -8, -5, -4, -3, -2, 8, 10],
     [31, 36, 43, 45, 58, 65, 91, 97],
     [122, 9, 13, 32, 37, 44, 59, 61],
     [62, 63, 92, 94, 96, 127, -128, -65],
     [-64, -33, -32, -17, -16, -9, -8, -5],
     [-4, -3, -2, 31, 34, 35, 60, 64],
     [123, 125, 13, 33, 37, 39, 47, 58],
     [59, 61, 62, 63, 91, 93, 96, 126],
     [127, -64, -33, -32, -17, -16, -9, -8],
     [-5, -4, -3, -2, 8, 10, 31, 36],
     [41, 42, 43, 45, 57, 65, 90, 95],
     [122, 13, 33, 37, 39, 47, 58, 59],
     [62, 63, 91, 93, 96, 126, 127, -64],
     [-33, -32, -17, -16, -9, -8, -5, -4],
     [-3, -2, 8, 10, 31, 36, 41, 42],
     [43, 45, 57, 65, 90, 95, 122, 13],
     [33, 37, 39, 59, 62, 63, 126, 127],
     [-64, -33, -32, -17, -16, -9, -8, -5],
     [-4, -3, -2, 8, 10, 31, 42, 43],
     [45, 46, 48, 57, 65, 70, 71, 90],
     [95, 96, 97, 102, 103, 122, 13, 33],
     [37, 39, 59, 62, 63, 126, 127, -64],
     [-33, -32, -17, -16, -9, -8, -5, -4],
     [-3, -2, 8, 10, 31, 42, 43, 45],
     [46, 48, 57, 65, 90, 95, 122, 13],
     [33, 37, 39, 59, 62, 63, 126, 127],
     [-64, -33, -32, -17, -16, -9, -8, -5],
     [-4, -3, -2, 8, 10, 31, 42, 43],
     [45, 46, 48, 57, 65, 70, 71, 90],
     [95, 96, 97, 102, 103, 122, 13, 33],
     [37, 59, 61, 62, 63, 82, 93, 95],
     [114, 126, 127, -64, -33, -32, -17, -16],
     [-9, -8, -5, -4, -3, -2, 8, 10],
     [31, 36, 43, 45, 58, 65, 91, 97],
     [122, 13, 33, 37, 59, 61, 62, 63],
     [65, 93, 95, 97, 126, 127, -64, -33],
     [-32, -17, -16, -9, -8, -5, -4, -3],
     [-2, 8, 10, 31, 36, 43, 45, 58],
     [66, 91, 98, 122, 13, 33, 37, 59],
     [61, 62, 63, 78, 93, 95, 110, 126],
     [127, -64, -33, -32, -17, -16, -9, -8],
     [-5, -4, -3, -2, 8, 10, 31, 36],
     [43, 45, 58, 65, 91, 97, 122, 13],
     [33, 37, 59, 61, 62, 63, 83, 93],
     [95, 115, 126, 127, -64, -33, -32, -17],
     [-16, -9, -8, -5, -4, -3, -2, 8],
     [10, 31, 36, 43, 45, 58, 65, 91],
     [97, 122, 13, 33, 37, 59, 61, 62],
     [63, 80, 93, 95, 112, 126, 127, -64],
     [-33, -32, -17, -16, -9, -8, -5, -4],
     [-3, -2, 8, 10, 31, 36, 43, 45],
     [58, 65, 91, 97, 122, 13, 33, 37],
     [59, 61, 62, 63, 79, 93, 95, 111],
     [126, 127, -64, -33, -32, -17, -16, -9],
     [-8, -5, -4, -3, -2, 8, 10, 31],
     [36, 43, 45, 58, 65, 91, 97, 122],
     [13, 33, 37, 59, 61, 62, 63, 82],
     [93, 95, 114, 126, 127, -64, -33, -32],
     [-17, -16, -9, -8, -5, -4, -3, -2],
     [8, 10, 31, 36, 43, 45, 58, 65],
     [91, 97, 122, 13, 33, 37, 59, 61],
     [62, 63, 84, 93, 95, 116, 126, 127],
     [-64, -33, -32, -17, -16, -9, -8, -5],
     [-4, -3, -2, 8, 10, 31, 36, 43],
     [45, 58, 65, 91, 97, 122, 9, 13],
     [32, 37, 44, 59, 61, 62, 63, 92],
     [94, 96, 127, -128, -65, -64, -33, -32],
     [-17, -16, -9, -8, -5, -4, -3, -2],
     [31, 34, 35, 60, 64, 123, 125, 13],
     [33, 37, 39, 47, 58, 59, 61, 62],
     [63, 83, 84, 85, 87, 91, 93, 96],
     [115, 116, 117, 119, 126, 127, -64, -33],
     [-32, -17, -16, -9, -8, -5, -4, -3],
     [-2, 8, 10, 31, 36, 41, 42, 43],
     [45, 57, 65, 90, 95, 122, 13, 33],
     [37, 39, 47, 58, 59, 62, 63, 91],
     [93, 96, 126, 127, -64, -33, -32, -17],
     [-16, -9, -8, -5, -4, -3, -2, 8],
     [10, 31, 36, 41, 42, 43, 45, 57],
     [65, 90, 95, 122, 13, 33, 37, 39],
     [59, 62, 63, 126, 127, -64, -33, -32],
     [-17, -16, -9, -8, -5, -4, -3, -2],
     [8, 10, 31, 42, 43, 45, 46, 48],
     [57, 65, 70, 71, 90, 95, 96, 97],
     [102, 103, 122, 13, 33, 37, 39, 59],
     [62, 63, 126, 127, -64, -33, -32, -17],
     [-16, -9, -8, -5, -4, -3, -2, 8],
     [10, 31, 42, 43, 45, 46, 48, 57],
     [65, 90, 95, 122, 13, 33, 37, 39],
     [59, 62, 63, 126, 127, -64, -33, -32],
     [-17, -16, -9, -8, -5, -4, -3, -2],
     [8, 10, 31, 42, 43, 45, 46, 48],
     [57, 65, 70, 71, 90, 95, 96, 97],
     [102, 103, 122, 13, 33, 37, 39, 47],
     [58, 59, 62, 63, 67, 91, 93, 96]]"

definition smp_trans_keys_59 :: "int list list" where
  "smp_trans_keys_59 =
    [[99, 126, 127, -64, -33, -32, -17, -16],
     [-9, -8, -5, -4, -3, -2, 8, 10],
     [31, 36, 41, 42, 43, 45, 57, 65],
     [90, 95, 122, 13, 33, 37, 39, 47],
     [58, 59, 62, 63, 84, 91, 93, 96],
     [116, 126, 127, -64, -33, -32, -17, -16],
     [-9, -8, -5, -4, -3, -2, 8, 10],
     [31, 36, 41, 42, 43, 45, 57, 65],
     [90, 95, 122, 13, 33, 37, 39, 47],
     [58, 59, 62, 63, 80, 91, 93, 96],
     [112, 126, 127, -64, -33, -32, -17, -16],
     [-9, -8, -5, -4, -3, -2, 8, 10],
     [31, 36, 41, 42, 43, 45, 57, 65],
     [90, 95, 122, 13, 33, 37, 39, 47],
     [58, 59, 62, 63, 91, 93, 96, 126],
     [127, -64, -33, -32, -17, -16, -9, -8],
     [-5, -4, -3, -2, 8, 10, 31, 36],
     [41, 42, 43, 45, 57, 65, 90, 95],
     [122, 13, 33, 37, 39, 47, 58, 59],
     [62, 63, 67, 76, 91, 93, 96, 99],
     [108, 126, 127, -64, -33, -32, -17, -16],
     [-9, -8, -5, -4, -3, -2, 8, 10],
     [31, 36, 41, 42, 43, 45, 57, 65],
     [90, 95, 122, 13, 33, 37, 39, 47],
     [58, 59, 62, 63, 80, 91, 93, 96],
     [112, 126, 127, -64, -33, -32, -17, -16],
     [-9, -8, -5, -4, -3, -2, 8, 10],
     [31, 36, 41, 42, 43, 45, 57, 65],
     [90, 95, 122, 13, 33, 37, 39, 47],
     [58, 59, 62, 63, 91, 93, 96, 126],
     [127, -64, -33, -32, -17, -16, -9, -8],
     [-5, -4, -3, -2, 8, 10, 31, 36],
     [41, 42, 43, 45, 57, 65, 90, 95],
     [122, 13, 33, 37, 39, 47, 58, 59],
     [62, 63, 83, 91, 93, 96, 115, 126],
     [127, -64, -33, -32, -17, -16, -9, -8],
     [-5, -4, -3, -2, 8, 10, 31, 36],
     [41, 42, 43, 45, 57, 65, 90, 95],
     [122, 13, 33, 37, 39, 47, 58, 59],
     [62, 63, 91, 93, 96, 126, 127, -64],
     [-33, -32, -17, -16, -9, -8, -5, -4],
     [-3, -2, 8, 10, 31, 36, 41, 42],
     [43, 45, 57, 65, 90, 95, 122, 13],
     [33, 37, 39, 47, 58, 59, 62, 63],
     [68, 91, 93, 96, 100, 126, 127, -64],
     [-33, -32, -17, -16, -9, -8, -5, -4],
     [-3, -2, 8, 10, 31, 36, 41, 42],
     [43, 45, 57, 65, 90, 95, 122, 13],
     [33, 37, 39, 47, 58, 59, 62, 63],
     [80, 91, 93, 96, 112, 126, 127, -64],
     [-33, -32, -17, -16, -9, -8, -5, -4],
     [-3, -2, 8, 10, 31, 36, 41, 42],
     [43, 45, 57, 65, 90, 95, 122, 13],
     [33, 37, 39, 47, 58, 59, 62, 63],
     [91, 93, 96, 126, 127, -64, -33, -32],
     [-17, -16, -9, -8, -5, -4, -3, -2],
     [8, 10, 31, 36, 41, 42, 43, 45],
     [57, 65, 90, 95, 122, 13, 33, 37],
     [39, 47, 58, 59, 62, 63, 83, 91],
     [93, 96, 115, 126, 127, -64, -33, -32],
     [-17, -16, -9, -8, -5, -4, -3, -2],
     [8, 10, 31, 36, 41, 42, 43, 45],
     [57, 65, 90, 95, 122, 13, 33, 37],
     [39, 47, 58, 59, 62, 63, 83, 91],
     [93, 96, 115, 126, 127, -64, -33, -32],
     [-17, -16, -9, -8, -5, -4, -3, -2],
     [8, 10, 31, 36, 41, 42, 43, 45],
     [57, 65, 90, 95, 122, 13, 33, 37],
     [39, 47, 58, 59, 62, 63, 91, 93],
     [96, 126, 127, -64, -33, -32, -17, -16],
     [-9, -8, -5, -4, -3, -2, 8, 10],
     [31, 36, 41, 42, 43, 45, 57, 65],
     [90, 95, 122, 13, 59, 62, 63, 127],
     [-64, -33, -32, -17, -16, -9, -8, -5],
     [-4, -3, -2, 8, 10, 31, 48, 57],
     [13, 59, 62, 63, 127, -64, -33, -32],
     [-17, -16, -9, -8, -5, -4, -3, -2],
     [8, 10, 31, 48, 57, 13, 59, 62],
     [63, 127, -64, -33, -32, -17, -16, -9],
     [-8, -5, -4, -3, -2, 8, 10, 31],
     [48, 57, 13, 59, 62, 63, 127, -64],
     [-33, -32, -17, -16, -9, -8, -5, -4],
     [-3, -2, 8, 10, 31, 48, 57, 13],
     [53, 59, 62, 63, 127, -64, -33, -32],
     [-17, -16, -9, -8, -5, -4, -3, -2],
     [8, 10, 31, 48, 52, 54, 57, 13],
     [53, 59, 62, 63, 127, -64, -33, -32],
     [-17, -16, -9, -8, -5, -4, -3, -2],
     [8, 10, 31, 48, 52, 54, 57, 13],
     [51, 59, 62, 63, 127, -64, -33, -32],
     [-17, -16, -9, -8, -5, -4, -3, -2],
     [8, 10, 31, 48, 50, 52, 57, 13],
     [59, 62, 63, 127, -64, -33, -32, -17],
     [-16, -9, -8, -5, -4, -3, -2, 8],
     [10, 31, 48, 53, 13, 48, 49, 50],
     [127, -64, -33, -32, -17, -16, -9, -8],
     [-5, -4, -3, -2, 8, 10, 31, 51],
     [57, 65, 90, 97, 122, 13, 45, 46],
     [95, 127, -64, -33, -32, -17, -16, -9],
     [-8, -5, -4, -3, -2, 8, 10, 31],
     [48, 57, 65, 90, 97, 122, 13, 48],
     [49, 50, 127, -64, -33, -32, -17, -16],
     [-9, -8, -5, -4, -3, -2, 8, 10],
     [31, 51, 57, 65, 90, 97, 122, 13],
     [45, 46, 95, 127, -64, -33, -32, -17],
     [-16, -9, -8, -5, -4, -3, -2, 8],
     [10, 31, 48, 57, 65, 90, 97, 122],
     [13, 48, 49, 50, 127, -64, -33, -32],
     [-17, -16, -9, -8, -5, -4, -3, -2],
     [8, 10, 31, 51, 57, 65, 90, 97],
     [122, 13, 45, 46, 58, 59, 62, 63],
     [95, 127, -64, -33, -32, -17, -16, -9],
     [-8, -5, -4, -3, -2, 8, 10, 31],
     [48, 57, 65, 90, 97, 122, 13, 45],
     [46, 58, 59, 62, 63, 95, 127, -64],
     [-33, -32, -17, -16, -9, -8, -5, -4],
     [-3, -2, 8, 10, 31, 48, 57, 65],
     [90, 97, 122, 13, 45, 46, 58, 59],
     [62, 63, 95, 127, -64, -33, -32, -17],
     [-16, -9, -8, -5, -4, -3, -2, 8],
     [10, 31, 48, 57, 65, 90, 97, 122],
     [13, 45, 46, 53, 58, 59, 62, 63],
     [95, 127, -64, -33, -32, -17, -16, -9],
     [-8, -5, -4, -3, -2, 8, 10, 31],
     [48, 52, 54, 57, 65, 90, 97, 122],
     [13, 45, 46, 58, 59, 62, 63, 95],
     [127, -64, -33, -32, -17, -16, -9, -8],
     [-5, -4, -3, -2, 8, 10, 31, 48],
     [53, 54, 57, 65, 90, 97, 122, 13],
     [45, 46, 95, 127, -64, -33, -32, -17],
     [-16, -9, -8, -5, -4, -3, -2, 8],
     [10, 31, 48, 57, 65, 90, 97, 122],
     [13, 45, 46, 95, 127, -64, -33, -32],
     [-17, -16, -9, -8, -5, -4, -3, -2],
     [8, 10, 31, 48, 57, 65, 90, 97],
     [122, 13, 45, 46, 53, 95, 127, -64],
     [-33, -32, -17, -16, -9, -8, -5, -4],
     [-3, -2, 8, 10, 31, 48, 52, 54],
     [57, 65, 90, 97, 122, 13, 45, 46],
     [95, 127, -64, -33, -32, -17, -16, -9],
     [-8, -5, -4, -3, -2, 8, 10, 31],
     [48, 53, 54, 57, 65, 90, 97, 122],
     [13, 45, 46, 95, 127, -64, -33, -32],
     [-17, -16, -9, -8, -5, -4, -3, -2],
     [8, 10, 31, 48, 57, 65, 90, 97],
     [122, 13, 45, 46, 95, 127, -64, -33],
     [-32, -17, -16, -9, -8, -5, -4, -3],
     [-2, 8, 10, 31, 48, 57, 65, 90],
     [97, 122, 13, 45, 46, 53, 95, 127],
     [-64, -33, -32, -17, -16, -9, -8, -5]]"

definition smp_trans_keys_60 :: "int list list" where
  "smp_trans_keys_60 =
    [[-4, -3, -2, 8, 10, 31, 48, 52],
     [54, 57, 65, 90, 97, 122, 13, 45],
     [46, 95, 127, -64, -33, -32, -17, -16],
     [-9, -8, -5, -4, -3, -2, 8, 10],
     [31, 48, 53, 54, 57, 65, 90, 97],
     [122, 13, 45, 46, 95, 127, -64, -33],
     [-32, -17, -16, -9, -8, -5, -4, -3],
     [-2, 8, 10, 31, 48, 57, 65, 90],
     [97, 122, 13, 45, 46, 95, 127, -64],
     [-33, -32, -17, -16, -9, -8, -5, -4],
     [-3, -2, 8, 10, 31, 48, 57, 65],
     [90, 97, 122, 13, 45, 46, 53, 95],
     [127, -64, -33, -32, -17, -16, -9, -8],
     [-5, -4, -3, -2, 8, 10, 31, 48],
     [52, 54, 57, 65, 90, 97, 122, 13],
     [45, 46, 95, 127, -64, -33, -32, -17],
     [-16, -9, -8, -5, -4, -3, -2, 8],
     [10, 31, 48, 53, 54, 57, 65, 90],
     [97, 122, 13, 58, 127, -64, -33, -32],
     [-17, -16, -9, -8, -5, -4, -3, -2],
     [8, 10, 31, 48, 57, 65, 70, 97],
     [102, 13, 58, 127, -64, -33, -32, -17],
     [-16, -9, -8, -5, -4, -3, -2, 8],
     [10, 31, 48, 57, 65, 70, 97, 102],
     [13, 58, 127, -64, -33, -32, -17, -16],
     [-9, -8, -5, -4, -3, -2, 8, 10],
     [31, 48, 57, 65, 70, 97, 102, 13],
     [58, 127, -64, -33, -32, -17, -16, -9],
     [-8, -5, -4, -3, -2, 8, 10, 31],
     [48, 57, 65, 70, 97, 102, 13, 58],
     [127, -64, -33, -32, -17, -16, -9, -8],
     [-5, -4, -3, -2, 8, 10, 31, 13],
     [58, 127, -64, -33, -32, -17, -16, -9],
     [-8, -5, -4, -3, -2, 8, 10, 31],
     [48, 57, 65, 70, 97, 102, 13, 58],
     [127, -64, -33, -32, -17, -16, -9, -8],
     [-5, -4, -3, -2, 8, 10, 31, 48],
     [57, 65, 70, 97, 102, 13, 58, 127],
     [-64, -33, -32, -17, -16, -9, -8, -5],
     [-4, -3, -2, 8, 10, 31, 48, 57],
     [65, 70, 97, 102, 13, 58, 127, -64],
     [-33, -32, -17, -16, -9, -8, -5, -4],
     [-3, -2, 8, 10, 31, 48, 57, 65],
     [70, 97, 102, 13, 58, 127, -64, -33],
     [-32, -17, -16, -9, -8, -5, -4, -3],
     [-2, 8, 10, 31, 13, 58, 127, -64],
     [-33, -32, -17, -16, -9, -8, -5, -4],
     [-3, -2, 8, 10, 31, 48, 57, 65],
     [70, 97, 102, 13, 58, 127, -64, -33],
     [-32, -17, -16, -9, -8, -5, -4, -3],
     [-2, 8, 10, 31, 48, 57, 65, 70],
     [97, 102, 13, 58, 127, -64, -33, -32],
     [-17, -16, -9, -8, -5, -4, -3, -2],
     [8, 10, 31, 48, 57, 65, 70, 97],
     [102, 13, 58, 127, -64, -33, -32, -17],
     [-16, -9, -8, -5, -4, -3, -2, 8],
     [10, 31, 48, 57, 65, 70, 97, 102],
     [13, 58, 127, -64, -33, -32, -17, -16],
     [-9, -8, -5, -4, -3, -2, 8, 10],
     [31, 13, 58, 127, -64, -33, -32, -17],
     [-16, -9, -8, -5, -4, -3, -2, 8],
     [10, 31, 48, 57, 65, 70, 97, 102],
     [13, 58, 127, -64, -33, -32, -17, -16],
     [-9, -8, -5, -4, -3, -2, 8, 10],
     [31, 48, 57, 65, 70, 97, 102, 13],
     [58, 127, -64, -33, -32, -17, -16, -9],
     [-8, -5, -4, -3, -2, 8, 10, 31],
     [48, 57, 65, 70, 97, 102, 13, 58],
     [127, -64, -33, -32, -17, -16, -9, -8],
     [-5, -4, -3, -2, 8, 10, 31, 48],
     [57, 65, 70, 97, 102, 13, 58, 127],
     [-64, -33, -32, -17, -16, -9, -8, -5],
     [-4, -3, -2, 8, 10, 31, 13, 58],
     [127, -64, -33, -32, -17, -16, -9, -8],
     [-5, -4, -3, -2, 8, 10, 31, 48],
     [57, 65, 70, 97, 102, 13, 58, 127],
     [-64, -33, -32, -17, -16, -9, -8, -5],
     [-4, -3, -2, 8, 10, 31, 48, 57],
     [65, 70, 97, 102, 13, 58, 127, -64],
     [-33, -32, -17, -16, -9, -8, -5, -4],
     [-3, -2, 8, 10, 31, 48, 57, 65],
     [70, 97, 102, 13, 58, 127, -64, -33],
     [-32, -17, -16, -9, -8, -5, -4, -3],
     [-2, 8, 10, 31, 48, 57, 65, 70],
     [97, 102, 13, 58, 127, -64, -33, -32],
     [-17, -16, -9, -8, -5, -4, -3, -2],
     [8, 10, 31, 13, 58, 127, -64, -33],
     [-32, -17, -16, -9, -8, -5, -4, -3],
     [-2, 8, 10, 31, 48, 57, 65, 70],
     [97, 102, 13, 58, 127, -64, -33, -32],
     [-17, -16, -9, -8, -5, -4, -3, -2],
     [8, 10, 31, 48, 57, 65, 70, 97],
     [102, 13, 58, 127, -64, -33, -32, -17],
     [-16, -9, -8, -5, -4, -3, -2, 8],
     [10, 31, 48, 57, 65, 70, 97, 102],
     [13, 58, 127, -64, -33, -32, -17, -16],
     [-9, -8, -5, -4, -3, -2, 8, 10],
     [31, 48, 57, 65, 70, 97, 102, 13],
     [58, 127, -64, -33, -32, -17, -16, -9],
     [-8, -5, -4, -3, -2, 8, 10, 31],
     [13, 48, 49, 50, 58, 127, -64, -33],
     [-32, -17, -16, -9, -8, -5, -4, -3],
     [-2, 8, 10, 31, 51, 57, 65, 70],
     [97, 102, 13, 46, 58, 127, -64, -33],
     [-32, -17, -16, -9, -8, -5, -4, -3],
     [-2, 8, 10, 31, 48, 57, 65, 70],
     [97, 102, 13, 48, 49, 50, 127, -64],
     [-33, -32, -17, -16, -9, -8, -5, -4],
     [-3, -2, 8, 10, 31, 51, 57, 13],
     [46, 127, -64, -33, -32, -17, -16, -9],
     [-8, -5, -4, -3, -2, 8, 10, 31],
     [13, 48, 49, 50, 127, -64, -33, -32],
     [-17, -16, -9, -8, -5, -4, -3, -2],
     [8, 10, 31, 51, 57, 13, 46, 127],
     [-64, -33, -32, -17, -16, -9, -8, -5],
     [-4, -3, -2, 8, 10, 31, 13, 48],
     [49, 50, 127, -64, -33, -32, -17, -16],
     [-9, -8, -5, -4, -3, -2, 8, 10],
     [31, 51, 57, 13, 93, 127, -64, -33],
     [-32, -17, -16, -9, -8, -5, -4, -3],
     [-2, 8, 10, 31, 13, 58, 59, 62],
     [63, 127, -64, -33, -32, -17, -16, -9],
     [-8, -5, -4, -3, -2, 8, 10, 31],
     [13, 93, 127, -64, -33, -32, -17, -16],
     [-9, -8, -5, -4, -3, -2, 8, 10],
     [31, 48, 57, 13, 93, 127, -64, -33],
     [-32, -17, -16, -9, -8, -5, -4, -3],
     [-2, 8, 10, 31, 48, 57, 13, 53],
     [93, 127, -64, -33, -32, -17, -16, -9],
     [-8, -5, -4, -3, -2, 8, 10, 31],
     [48, 52, 54, 57, 13, 93, 127, -64],
     [-33, -32, -17, -16, -9, -8, -5, -4],
     [-3, -2, 8, 10, 31, 48, 53, 13],
     [46, 127, -64, -33, -32, -17, -16, -9],
     [-8, -5, -4, -3, -2, 8, 10, 31],
     [48, 57, 13, 46, 127, -64, -33, -32],
     [-17, -16, -9, -8, -5, -4, -3, -2],
     [8, 10, 31, 48, 57, 13, 46, 53],
     [127, -64, -33, -32, -17, -16, -9, -8],
     [-5, -4, -3, -2, 8, 10, 31, 48],
     [52, 54, 57, 13, 46, 127, -64, -33],
     [-32, -17, -16, -9, -8, -5, -4, -3],
     [-2, 8, 10, 31, 48, 53, 13, 46],
     [127, -64, -33, -32, -17, -16, -9, -8],
     [-5, -4, -3, -2, 8, 10, 31, 48],
     [57, 13, 46, 127, -64, -33, -32, -17],
     [-16, -9, -8, -5, -4, -3, -2, 8],
     [10, 31, 48, 57, 13, 46, 53, 127],
     [-64, -33, -32, -17, -16, -9, -8, -5],
     [-4, -3, -2, 8, 10, 31, 48, 52]]"

definition smp_trans_keys_61 :: "int list list" where
  "smp_trans_keys_61 =
    [[54, 57, 13, 46, 127, -64, -33, -32],
     [-17, -16, -9, -8, -5, -4, -3, -2],
     [8, 10, 31, 48, 53, 13, 58, 127],
     [-64, -33, -32, -17, -16, -9, -8, -5],
     [-4, -3, -2, 8, 10, 31, 48, 57],
     [65, 70, 97, 102, 13, 58, 127, -64],
     [-33, -32, -17, -16, -9, -8, -5, -4],
     [-3, -2, 8, 10, 31, 48, 57, 65],
     [70, 97, 102, 13, 58, 127, -64, -33],
     [-32, -17, -16, -9, -8, -5, -4, -3],
     [-2, 8, 10, 31, 13, 58, 127, -64],
     [-33, -32, -17, -16, -9, -8, -5, -4],
     [-3, -2, 8, 10, 31, 48, 57, 65],
     [70, 97, 102, 13, 93, 127, -64, -33],
     [-32, -17, -16, -9, -8, -5, -4, -3],
     [-2, 8, 10, 31, 48, 57, 65, 70],
     [97, 102, 13, 93, 127, -64, -33, -32],
     [-17, -16, -9, -8, -5, -4, -3, -2],
     [8, 10, 31, 48, 57, 65, 70, 97],
     [102, 13, 93, 127, -64, -33, -32, -17],
     [-16, -9, -8, -5, -4, -3, -2, 8],
     [10, 31, 48, 57, 65, 70, 97, 102],
     [13, 46, 58, 127, -64, -33, -32, -17],
     [-16, -9, -8, -5, -4, -3, -2, 8],
     [10, 31, 48, 57, 65, 70, 97, 102],
     [13, 46, 58, 127, -64, -33, -32, -17],
     [-16, -9, -8, -5, -4, -3, -2, 8],
     [10, 31, 48, 57, 65, 70, 97, 102],
     [13, 46, 58, 127, -64, -33, -32, -17],
     [-16, -9, -8, -5, -4, -3, -2, 8],
     [10, 31, 48, 57, 65, 70, 97, 102],
     [13, 46, 53, 58, 127, -64, -33, -32],
     [-17, -16, -9, -8, -5, -4, -3, -2],
     [8, 10, 31, 48, 52, 54, 57, 65],
     [70, 97, 102, 13, 46, 58, 127, -64],
     [-33, -32, -17, -16, -9, -8, -5, -4],
     [-3, -2, 8, 10, 31, 48, 53, 54],
     [57, 65, 70, 97, 102, 13, 46, 58],
     [127, -64, -33, -32, -17, -16, -9, -8],
     [-5, -4, -3, -2, 8, 10, 31, 48],
     [57, 65, 70, 97, 102, 13, 46, 58],
     [127, -64, -33, -32, -17, -16, -9, -8],
     [-5, -4, -3, -2, 8, 10, 31, 48],
     [57, 65, 70, 97, 102, 13, 93, 127],
     [-64, -33, -32, -17, -16, -9, -8, -5],
     [-4, -3, -2, 8, 10, 31, 48, 57],
     [65, 70, 97, 102, 13, 58, 127, -64],
     [-33, -32, -17, -16, -9, -8, -5, -4],
     [-3, -2, 8, 10, 31, 48, 57, 65],
     [70, 97, 102, 13, 48, 49, 50, 93],
     [127, -64, -33, -32, -17, -16, -9, -8],
     [-5, -4, -3, -2, 8, 10, 31, 51],
     [57, 65, 70, 97, 102, 13, 46, 58],
     [93, 127, -64, -33, -32, -17, -16, -9],
     [-8, -5, -4, -3, -2, 8, 10, 31],
     [48, 57, 65, 70, 97, 102, 13, 58],
     [93, 127, -64, -33, -32, -17, -16, -9],
     [-8, -5, -4, -3, -2, 8, 10, 31],
     [48, 57, 65, 70, 97, 102, 13, 58],
     [93, 127, -64, -33, -32, -17, -16, -9],
     [-8, -5, -4, -3, -2, 8, 10, 31],
     [48, 57, 65, 70, 97, 102, 13, 58],
     [93, 127, -64, -33, -32, -17, -16, -9],
     [-8, -5, -4, -3, -2, 8, 10, 31],
     [13, 127, -64, -33, -32, -17, -16, -9],
     [-8, -5, -4, -3, -2, 8, 10, 31],
     [48, 57, 65, 70, 97, 102, 13, 46],
     [58, 93, 127, -64, -33, -32, -17, -16],
     [-9, -8, -5, -4, -3, -2, 8, 10],
     [31, 48, 57, 65, 70, 97, 102, 13],
     [46, 58, 93, 127, -64, -33, -32, -17],
     [-16, -9, -8, -5, -4, -3, -2, 8],
     [10, 31, 48, 57, 65, 70, 97, 102],
     [13, 46, 58, 93, 127, -64, -33, -32],
     [-17, -16, -9, -8, -5, -4, -3, -2],
     [8, 10, 31, 48, 57, 65, 70, 97],
     [102, 13, 46, 53, 58, 93, 127, -64],
     [-33, -32, -17, -16, -9, -8, -5, -4],
     [-3, -2, 8, 10, 31, 48, 52, 54],
     [57, 65, 70, 97, 102, 13, 46, 58],
     [93, 127, -64, -33, -32, -17, -16, -9],
     [-8, -5, -4, -3, -2, 8, 10, 31],
     [48, 53, 54, 57, 65, 70, 97, 102],
     [13, 46, 58, 93, 127, -64, -33, -32],
     [-17, -16, -9, -8, -5, -4, -3, -2],
     [8, 10, 31, 48, 57, 65, 70, 97],
     [102, 13, 46, 58, 93, 127, -64, -33],
     [-32, -17, -16, -9, -8, -5, -4, -3],
     [-2, 8, 10, 31, 48, 57, 65, 70],
     [97, 102, 13, 58, 93, 127, -64, -33],
     [-32, -17, -16, -9, -8, -5, -4, -3],
     [-2, 8, 10, 31, 48, 57, 65, 70],
     [97, 102, 13, 48, 49, 50, 93, 127],
     [-64, -33, -32, -17, -16, -9, -8, -5],
     [-4, -3, -2, 8, 10, 31, 51, 57],
     [65, 70, 97, 102, 13, 46, 58, 93],
     [127, -64, -33, -32, -17, -16, -9, -8],
     [-5, -4, -3, -2, 8, 10, 31, 48],
     [57, 65, 70, 97, 102, 13, 58, 93],
     [127, -64, -33, -32, -17, -16, -9, -8],
     [-5, -4, -3, -2, 8, 10, 31, 48],
     [57, 65, 70, 97, 102, 13, 58, 93],
     [127, -64, -33, -32, -17, -16, -9, -8],
     [-5, -4, -3, -2, 8, 10, 31, 48],
     [57, 65, 70, 97, 102, 13, 58, 93],
     [127, -64, -33, -32, -17, -16, -9, -8],
     [-5, -4, -3, -2, 8, 10, 31, 13],
     [48, 49, 50, 127, -64, -33, -32, -17],
     [-16, -9, -8, -5, -4, -3, -2, 8],
     [10, 31, 51, 57, 65, 70, 97, 102],
     [13, 46, 58, 93, 127, -64, -33, -32],
     [-17, -16, -9, -8, -5, -4, -3, -2],
     [8, 10, 31, 48, 57, 65, 70, 97],
     [102, 13, 46, 58, 93, 127, -64, -33],
     [-32, -17, -16, -9, -8, -5, -4, -3],
     [-2, 8, 10, 31, 48, 57, 65, 70],
     [97, 102, 13, 46, 58, 93, 127, -64],
     [-33, -32, -17, -16, -9, -8, -5, -4],
     [-3, -2, 8, 10, 31, 48, 57, 65],
     [70, 97, 102, 13, 46, 53, 58, 93],
     [127, -64, -33, -32, -17, -16, -9, -8],
     [-5, -4, -3, -2, 8, 10, 31, 48],
     [52, 54, 57, 65, 70, 97, 102, 13],
     [46, 58, 93, 127, -64, -33, -32, -17],
     [-16, -9, -8, -5, -4, -3, -2, 8],
     [10, 31, 48, 53, 54, 57, 65, 70],
     [97, 102, 13, 46, 58, 93, 127, -64],
     [-33, -32, -17, -16, -9, -8, -5, -4],
     [-3, -2, 8, 10, 31, 48, 57, 65],
     [70, 97, 102, 13, 46, 58, 93, 127],
     [-64, -33, -32, -17, -16, -9, -8, -5],
     [-4, -3, -2, 8, 10, 31, 48, 57],
     [65, 70, 97, 102, 13, 58, 93, 127],
     [-64, -33, -32, -17, -16, -9, -8, -5],
     [-4, -3, -2, 8, 10, 31, 48, 57],
     [65, 70, 97, 102, 13, 48, 49, 50],
     [93, 127, -64, -33, -32, -17, -16, -9],
     [-8, -5, -4, -3, -2, 8, 10, 31],
     [51, 57, 65, 70, 97, 102, 13, 46],
     [58, 93, 127, -64, -33, -32, -17, -16],
     [-9, -8, -5, -4, -3, -2, 8, 10],
     [31, 48, 57, 65, 70, 97, 102, 13],
     [58, 93, 127, -64, -33, -32, -17, -16],
     [-9, -8, -5, -4, -3, -2, 8, 10],
     [31, 48, 57, 65, 70, 97, 102, 13],
     [58, 93, 127, -64, -33, -32, -17, -16],
     [-9, -8, -5, -4, -3, -2, 8, 10],
     [31, 48, 57, 65, 70, 97, 102, 13],
     [58, 93, 127, -64, -33, -32, -17, -16],
     [-9, -8, -5, -4, -3, -2, 8, 10]]"

definition smp_trans_keys_62 :: "int list list" where
  "smp_trans_keys_62 =
    [[31, 13, 48, 49, 50, 127, -64, -33],
     [-32, -17, -16, -9, -8, -5, -4, -3],
     [-2, 8, 10, 31, 51, 57, 65, 70],
     [97, 102, 13, 46, 58, 93, 127, -64],
     [-33, -32, -17, -16, -9, -8, -5, -4],
     [-3, -2, 8, 10, 31, 48, 57, 65],
     [70, 97, 102, 13, 46, 58, 93, 127],
     [-64, -33, -32, -17, -16, -9, -8, -5],
     [-4, -3, -2, 8, 10, 31, 48, 57],
     [65, 70, 97, 102, 13, 46, 58, 93],
     [127, -64, -33, -32, -17, -16, -9, -8],
     [-5, -4, -3, -2, 8, 10, 31, 48],
     [57, 65, 70, 97, 102, 13, 46, 53],
     [58, 93, 127, -64, -33, -32, -17, -16],
     [-9, -8, -5, -4, -3, -2, 8, 10],
     [31, 48, 52, 54, 57, 65, 70, 97],
     [102, 13, 46, 58, 93, 127, -64, -33],
     [-32, -17, -16, -9, -8, -5, -4, -3],
     [-2, 8, 10, 31, 48, 53, 54, 57],
     [65, 70, 97, 102, 13, 46, 58, 93],
     [127, -64, -33, -32, -17, -16, -9, -8],
     [-5, -4, -3, -2, 8, 10, 31, 48],
     [57, 65, 70, 97, 102, 13, 46, 58],
     [93, 127, -64, -33, -32, -17, -16, -9],
     [-8, -5, -4, -3, -2, 8, 10, 31],
     [48, 57, 65, 70, 97, 102, 13, 58],
     [93, 127, -64, -33, -32, -17, -16, -9],
     [-8, -5, -4, -3, -2, 8, 10, 31],
     [48, 57, 65, 70, 97, 102, 13, 48],
     [49, 50, 93, 127, -64, -33, -32, -17],
     [-16, -9, -8, -5, -4, -3, -2, 8],
     [10, 31, 51, 57, 65, 70, 97, 102],
     [13, 46, 58, 93, 127, -64, -33, -32],
     [-17, -16, -9, -8, -5, -4, -3, -2],
     [8, 10, 31, 48, 57, 65, 70, 97],
     [102, 13, 58, 93, 127, -64, -33, -32],
     [-17, -16, -9, -8, -5, -4, -3, -2],
     [8, 10, 31, 48, 57, 65, 70, 97],
     [102, 13, 58, 93, 127, -64, -33, -32],
     [-17, -16, -9, -8, -5, -4, -3, -2],
     [8, 10, 31, 48, 57, 65, 70, 97],
     [102, 13, 58, 93, 127, -64, -33, -32],
     [-17, -16, -9, -8, -5, -4, -3, -2],
     [8, 10, 31, 13, 48, 49, 50, 127],
     [-64, -33, -32, -17, -16, -9, -8, -5],
     [-4, -3, -2, 8, 10, 31, 51, 57],
     [65, 70, 97, 102, 13, 46, 58, 93],
     [127, -64, -33, -32, -17, -16, -9, -8],
     [-5, -4, -3, -2, 8, 10, 31, 48],
     [57, 65, 70, 97, 102, 13, 46, 58],
     [93, 127, -64, -33, -32, -17, -16, -9],
     [-8, -5, -4, -3, -2, 8, 10, 31],
     [48, 57, 65, 70, 97, 102, 13, 46],
     [58, 93, 127, -64, -33, -32, -17, -16],
     [-9, -8, -5, -4, -3, -2, 8, 10],
     [31, 48, 57, 65, 70, 97, 102, 13],
     [46, 53, 58, 93, 127, -64, -33, -32],
     [-17, -16, -9, -8, -5, -4, -3, -2],
     [8, 10, 31, 48, 52, 54, 57, 65],
     [70, 97, 102, 13, 46, 58, 93, 127],
     [-64, -33, -32, -17, -16, -9, -8, -5],
     [-4, -3, -2, 8, 10, 31, 48, 53],
     [54, 57, 65, 70, 97, 102, 13, 46],
     [58, 93, 127, -64, -33, -32, -17, -16],
     [-9, -8, -5, -4, -3, -2, 8, 10],
     [31, 48, 57, 65, 70, 97, 102, 13],
     [46, 58, 93, 127, -64, -33, -32, -17],
     [-16, -9, -8, -5, -4, -3, -2, 8],
     [10, 31, 48, 57, 65, 70, 97, 102],
     [13, 58, 93, 127, -64, -33, -32, -17],
     [-16, -9, -8, -5, -4, -3, -2, 8],
     [10, 31, 48, 57, 65, 70, 97, 102],
     [13, 48, 49, 50, 93, 127, -64, -33],
     [-32, -17, -16, -9, -8, -5, -4, -3],
     [-2, 8, 10, 31, 51, 57, 65, 70],
     [97, 102, 13, 46, 58, 93, 127, -64],
     [-33, -32, -17, -16, -9, -8, -5, -4],
     [-3, -2, 8, 10, 31, 48, 57, 65],
     [70, 97, 102, 13, 58, 93, 127, -64],
     [-33, -32, -17, -16, -9, -8, -5, -4],
     [-3, -2, 8, 10, 31, 48, 57, 65],
     [70, 97, 102, 13, 58, 93, 127, -64],
     [-33, -32, -17, -16, -9, -8, -5, -4],
     [-3, -2, 8, 10, 31, 48, 57, 65],
     [70, 97, 102, 13, 58, 93, 127, -64],
     [-33, -32, -17, -16, -9, -8, -5, -4],
     [-3, -2, 8, 10, 31, 13, 48, 49],
     [50, 127, -64, -33, -32, -17, -16, -9],
     [-8, -5, -4, -3, -2, 8, 10, 31],
     [51, 57, 65, 70, 97, 102, 13, 46],
     [58, 93, 127, -64, -33, -32, -17, -16],
     [-9, -8, -5, -4, -3, -2, 8, 10],
     [31, 48, 57, 65, 70, 97, 102, 13],
     [46, 58, 93, 127, -64, -33, -32, -17],
     [-16, -9, -8, -5, -4, -3, -2, 8],
     [10, 31, 48, 57, 65, 70, 97, 102],
     [13, 46, 58, 93, 127, -64, -33, -32],
     [-17, -16, -9, -8, -5, -4, -3, -2],
     [8, 10, 31, 48, 57, 65, 70, 97],
     [102, 13, 46, 53, 58, 93, 127, -64],
     [-33, -32, -17, -16, -9, -8, -5, -4],
     [-3, -2, 8, 10, 31, 48, 52, 54],
     [57, 65, 70, 97, 102, 13, 46, 58],
     [93, 127, -64, -33, -32, -17, -16, -9],
     [-8, -5, -4, -3, -2, 8, 10, 31],
     [48, 53, 54, 57, 65, 70, 97, 102],
     [13, 46, 58, 93, 127, -64, -33, -32],
     [-17, -16, -9, -8, -5, -4, -3, -2],
     [8, 10, 31, 48, 57, 65, 70, 97],
     [102, 13, 46, 58, 93, 127, -64, -33],
     [-32, -17, -16, -9, -8, -5, -4, -3],
     [-2, 8, 10, 31, 48, 57, 65, 70],
     [97, 102, 13, 58, 93, 127, -64, -33],
     [-32, -17, -16, -9, -8, -5, -4, -3],
     [-2, 8, 10, 31, 48, 57, 65, 70],
     [97, 102, 13, 58, 127, -64, -33, -32],
     [-17, -16, -9, -8, -5, -4, -3, -2],
     [8, 10, 31, 13, 48, 49, 50, 93],
     [127, -64, -33, -32, -17, -16, -9, -8],
     [-5, -4, -3, -2, 8, 10, 31, 51],
     [57, 65, 70, 97, 102, 13, 46, 58],
     [93, 127, -64, -33, -32, -17, -16, -9],
     [-8, -5, -4, -3, -2, 8, 10, 31],
     [48, 57, 65, 70, 97, 102, 13, 58],
     [93, 127, -64, -33, -32, -17, -16, -9],
     [-8, -5, -4, -3, -2, 8, 10, 31],
     [48, 57, 65, 70, 97, 102, 13, 58],
     [93, 127, -64, -33, -32, -17, -16, -9],
     [-8, -5, -4, -3, -2, 8, 10, 31],
     [48, 57, 65, 70, 97, 102, 13, 58],
     [93, 127, -64, -33, -32, -17, -16, -9],
     [-8, -5, -4, -3, -2, 8, 10, 31],
     [13, 48, 49, 50, 127, -64, -33, -32],
     [-17, -16, -9, -8, -5, -4, -3, -2],
     [8, 10, 31, 51, 57, 65, 70, 97],
     [102, 13, 46, 58, 93, 127, -64, -33],
     [-32, -17, -16, -9, -8, -5, -4, -3],
     [-2, 8, 10, 31, 48, 57, 65, 70],
     [97, 102, 13, 46, 58, 93, 127, -64],
     [-33, -32, -17, -16, -9, -8, -5, -4],
     [-3, -2, 8, 10, 31, 48, 57, 65],
     [70, 97, 102, 13, 46, 58, 93, 127],
     [-64, -33, -32, -17, -16, -9, -8, -5],
     [-4, -3, -2, 8, 10, 31, 48, 57],
     [65, 70, 97, 102, 13, 46, 53, 58],
     [93, 127, -64, -33, -32, -17, -16, -9],
     [-8, -5, -4, -3, -2, 8, 10, 31],
     [48, 52, 54, 57, 65, 70, 97, 102],
     [13, 46, 58, 93, 127, -64, -33, -32],
     [-17, -16, -9, -8, -5, -4, -3, -2]]"

definition smp_trans_keys_63 :: "int list list" where
  "smp_trans_keys_63 =
    [[8, 10, 31, 48, 53, 54, 57, 65],
     [70, 97, 102, 13, 46, 58, 93, 127],
     [-64, -33, -32, -17, -16, -9, -8, -5],
     [-4, -3, -2, 8, 10, 31, 48, 57],
     [65, 70, 97, 102, 13, 46, 58, 93],
     [127, -64, -33, -32, -17, -16, -9, -8],
     [-5, -4, -3, -2, 8, 10, 31, 48],
     [57, 65, 70, 97, 102, 13, 58, 93],
     [127, -64, -33, -32, -17, -16, -9, -8],
     [-5, -4, -3, -2, 8, 10, 31, 48],
     [57, 65, 70, 97, 102, 13, 33, 37],
     [45, 46, 58, 59, 61, 63, 64, 95],
     [126, 127, -64, -33, -32, -17, -16, -9],
     [-8, -5, -4, -3, -2, 8, 10, 31],
     [35, 47, 48, 57, 65, 90, 97, 122],
     [13, 33, 37, 45, 58, 59, 61, 63],
     [64, 95, 126, 127, -64, -33, -32, -17],
     [-16, -9, -8, -5, -4, -3, -2, 8],
     [10, 31, 35, 47, 48, 57, 65, 90],
     [97, 122, 13, 33, 37, 45, 46, 58],
     [59, 61, 63, 64, 95, 126, 127, -64],
     [-33, -32, -17, -16, -9, -8, -5, -4],
     [-3, -2, 8, 10, 31, 35, 47, 48],
     [57, 65, 90, 97, 122, 13, 33, 37],
     [58, 59, 61, 63, 64, 95, 126, 127],
     [-64, -33, -32, -17, -16, -9, -8, -5],
     [-4, -3, -2, 8, 10, 31, 35, 47],
     [48, 57, 65, 90, 97, 122, 13, 33],
     [37, 45, 46, 58, 59, 61, 62, 63],
     [64, 95, 126, 127, -64, -33, -32, -17],
     [-16, -9, -8, -5, -4, -3, -2, 8],
     [10, 31, 35, 47, 48, 57, 65, 90],
     [97, 122, 13, 33, 37, 45, 58, 59],
     [61, 63, 64, 95, 126, 127, -64, -33],
     [-32, -17, -16, -9, -8, -5, -4, -3],
     [-2, 8, 10, 31, 35, 47, 48, 57],
     [65, 90, 97, 122, 13, 33, 37, 58],
     [59, 61, 62, 63, 64, 95, 126, 127],
     [-64, -33, -32, -17, -16, -9, -8, -5],
     [-4, -3, -2, 8, 10, 31, 35, 47],
     [48, 57, 65, 90, 97, 122, 13, 33],
     [37, 48, 54, 61, 64, 95, 126, 127],
     [-64, -33, -32, -17, -16, -9, -8, -5],
     [-4, -3, -2, 8, 10, 31, 36, 46],
     [49, 53, 55, 57, 65, 90, 97, 122],
     [13, 33, 37, 48, 61, 64, 95, 126],
     [127, -64, -33, -32, -17, -16, -9, -8],
     [-5, -4, -3, -2, 8, 10, 31, 36],
     [46, 49, 57, 65, 90, 97, 122, 13],
     [33, 37, 48, 61, 64, 95, 126, 127],
     [-64, -33, -32, -17, -16, -9, -8, -5],
     [-4, -3, -2, 8, 10, 31, 36, 46],
     [49, 57, 65, 90, 97, 122, 13, 33],
     [37, 48, 61, 64, 95, 126, 127, -64],
     [-33, -32, -17, -16, -9, -8, -5, -4],
     [-3, -2, 8, 10, 31, 36, 46, 49],
     [57, 65, 90, 97, 122, 13, 33, 37],
     [59, 62, 63, 64, 95, 126, 127, -64],
     [-33, -32, -17, -16, -9, -8, -5, -4],
     [-3, -2, 8, 10, 31, 36, 46, 48],
     [57, 61, 90, 97, 122, 13, 33, 37],
     [59, 62, 63, 64, 95, 126, 127, -64],
     [-33, -32, -17, -16, -9, -8, -5, -4],
     [-3, -2, 8, 10, 31, 36, 46, 48],
     [57, 61, 90, 97, 122, 13, 33, 37],
     [59, 62, 63, 64, 95, 126, 127, -64],
     [-33, -32, -17, -16, -9, -8, -5, -4],
     [-3, -2, 8, 10, 31, 36, 46, 48],
     [57, 61, 90, 97, 122, 13, 33, 37],
     [59, 62, 63, 64, 95, 126, 127, -64],
     [-33, -32, -17, -16, -9, -8, -5, -4],
     [-3, -2, 8, 10, 31, 36, 46, 48],
     [57, 61, 90, 97, 122, 13, 33, 37],
     [59, 62, 63, 64, 95, 126, 127, -64],
     [-33, -32, -17, -16, -9, -8, -5, -4],
     [-3, -2, 8, 10, 31, 36, 46, 48],
     [57, 61, 90, 97, 122, 13, 33, 37],
     [53, 59, 62, 63, 64, 95, 126, 127],
     [-64, -33, -32, -17, -16, -9, -8, -5],
     [-4, -3, -2, 8, 10, 31, 36, 46],
     [48, 52, 54, 57, 61, 90, 97, 122],
     [13, 33, 37, 53, 59, 62, 63, 64],
     [95, 126, 127, -64, -33, -32, -17, -16],
     [-9, -8, -5, -4, -3, -2, 8, 10],
     [31, 36, 46, 48, 52, 54, 57, 61],
     [90, 97, 122, 13, 33, 37, 51, 59],
     [62, 63, 64, 95, 126, 127, -64, -33],
     [-32, -17, -16, -9, -8, -5, -4, -3],
     [-2, 8, 10, 31, 36, 46, 48, 50],
     [52, 57, 61, 90, 97, 122, 13, 33],
     [37, 59, 62, 63, 64, 95, 126, 127],
     [-64, -33, -32, -17, -16, -9, -8, -5],
     [-4, -3, -2, 8, 10, 31, 36, 46],
     [48, 53, 54, 57, 61, 90, 97, 122],
     [13, 33, 35, 37, 44, 58, 59, 61],
     [63, 64, 76, 79, 84, 91, 93, 95],
     [108, 111, 116, 126, 127, -64, -33, -32],
     [-17, -16, -9, -8, -5, -4, -3, -2],
     [8, 10, 31, 36, 57, 65, 90, 97],
     [122, 9, 13, 32, 34, 35, 37, 44],
     [58, 59, 60, 61, 62, 63, 64, 92],
     [94, 96, 127, -128, -65, -64, -33, -32],
     [-17, -16, -9, -8, -5, -4, -3, -2],
     [31, 91, 93, 123, 125, 13, 127, -64],
     [-33, -32, -17, -16, -9, -8, -5, -4],
     [-3, -2, 8, 10, 31, 48, 57, 65],
     [70, 97, 102, 13, 127, -64, -33, -32],
     [-17, -16, -9, -8, -5, -4, -3, -2],
     [8, 10, 31, 48, 57, 65, 70, 97],
     [102, 13, 33, 37, 44, 47, 58, 59],
     [61, 62, 63, 64, 91, 93, 95, 126],
     [127, -64, -33, -32, -17, -16, -9, -8],
     [-5, -4, -3, -2, 8, 10, 31, 36],
     [57, 65, 90, 97, 122, 13, 127, -64],
     [-33, -32, -17, -16, -9, -8, -5, -4],
     [-3, -2, 8, 10, 31, 48, 57, 65],
     [70, 97, 102, 13, 127, -64, -33, -32],
     [-17, -16, -9, -8, -5, -4, -3, -2],
     [8, 10, 31, 48, 57, 65, 70, 97],
     [102, 13, 33, 37, 44, 47, 58, 59],
     [61, 62, 63, 64, 91, 93, 95, 126],
     [127, -64, -33, -32, -17, -16, -9, -8],
     [-5, -4, -3, -2, 8, 10, 31, 36],
     [57, 65, 90, 97, 122, 13, 33, 37],
     [44, 47, 58, 59, 61, 62, 63, 64],
     [91, 93, 95, 126, 127, -64, -33, -32],
     [-17, -16, -9, -8, -5, -4, -3, -2],
     [8, 10, 31, 36, 57, 65, 90, 97],
     [122, 13, 127, -64, -33, -32, -17, -16],
     [-9, -8, -5, -4, -3, -2, 8, 10],
     [31, 48, 57, 65, 70, 97, 102, 13],
     [127, -64, -33, -32, -17, -16, -9, -8],
     [-5, -4, -3, -2, 8, 10, 31, 48],
     [57, 65, 70, 97, 102, 13, 33, 37],
     [44, 47, 58, 61, 64, 91, 93, 95],
     [126, 127, -64, -33, -32, -17, -16, -9],
     [-8, -5, -4, -3, -2, 8, 10, 31],
     [36, 57, 65, 90, 97, 122, 9, 13],
     [32, 34, 35, 37, 44, 58, 59, 60],
     [61, 62, 63, 64, 92, 94, 96, 127],
     [-128, -65, -64, -33, -32, -17, -16, -9],
     [-8, -5, -4, -3, -2, 31, 91, 93],
     [123, 125, 9, 13, 32, 34, 35, 37],
     [44, 58, 59, 60, 61, 62, 63, 64],
     [92, 94, 96, 127, -128, -65, -64, -33],
     [-32, -17, -16, -9, -8, -5, -4, -3],
     [-2, 31, 91, 93, 123, 125, 13, 127],
     [-64, -33, -32, -17, -16, -9, -8, -5],
     [-4, -3, -2, 8, 10, 31, 48, 57],
     [65, 70, 97, 102, 13, 127, -64, -33]]"

definition smp_trans_keys_64 :: "int list list" where
  "smp_trans_keys_64 =
    [[-32, -17, -16, -9, -8, -5, -4, -3],
     [-2, 8, 10, 31, 48, 57, 65, 70],
     [97, 102, 9, 13, 32, 34, 35, 37],
     [38, 44, 58, 60, 62, 64, 92, 94],
     [96, 127, -128, -65, -64, -33, -32, -17],
     [-16, -9, -8, -5, -4, -3, -2, 31],
     [59, 61, 91, 93, 123, 125, 9, 13],
     [32, 34, 35, 37, 38, 44, 58, 59],
     [61, 64, 92, 94, 96, 127, -128, -65],
     [-64, -33, -32, -17, -16, -9, -8, -5],
     [-4, -3, -2, 31, 60, 62, 91, 93],
     [123, 125, 13, 127, -64, -33, -32, -17],
     [-16, -9, -8, -5, -4, -3, -2, 8],
     [10, 31, 48, 57, 65, 70, 97, 102],
     [13, 127, -64, -33, -32, -17, -16, -9],
     [-8, -5, -4, -3, -2, 8, 10, 31],
     [48, 57, 65, 70, 97, 102, 13, 33],
     [37, 38, 44, 47, 58, 61, 63, 64],
     [91, 93, 95, 126, 127, -64, -33, -32],
     [-17, -16, -9, -8, -5, -4, -3, -2],
     [8, 10, 31, 36, 57, 65, 90, 97],
     [122, 13, 127, -64, -33, -32, -17, -16],
     [-9, -8, -5, -4, -3, -2, 8, 10],
     [31, 48, 57, 65, 70, 97, 102, 13],
     [127, -64, -33, -32, -17, -16, -9, -8],
     [-5, -4, -3, -2, 8, 10, 31, 48],
     [57, 65, 70, 97, 102, 13, 33, 37],
     [38, 44, 47, 58, 61, 62, 63, 64],
     [91, 93, 95, 126, 127, -64, -33, -32],
     [-17, -16, -9, -8, -5, -4, -3, -2],
     [8, 10, 31, 36, 57, 65, 90, 97],
     [122, 13, 127, -64, -33, -32, -17, -16],
     [-9, -8, -5, -4, -3, -2, 8, 10],
     [31, 48, 57, 65, 70, 97, 102, 13],
     [127, -64, -33, -32, -17, -16, -9, -8],
     [-5, -4, -3, -2, 8, 10, 31, 48],
     [57, 65, 70, 97, 102, 13, 33, 37],
     [38, 44, 47, 58, 61, 63, 64, 91],
     [93, 95, 126, 127, -64, -33, -32, -17],
     [-16, -9, -8, -5, -4, -3, -2, 8],
     [10, 31, 36, 57, 65, 90, 97, 122],
     [9, 13, 32, 34, 35, 37, 38, 44],
     [58, 60, 62, 64, 92, 94, 96, 127],
     [-128, -65, -64, -33, -32, -17, -16, -9],
     [-8, -5, -4, -3, -2, 31, 59, 61],
     [91, 93, 123, 125, 13, 127, -64, -33],
     [-32, -17, -16, -9, -8, -5, -4, -3],
     [-2, 8, 10, 31, 48, 57, 65, 70],
     [97, 102, 13, 127, -64, -33, -32, -17],
     [-16, -9, -8, -5, -4, -3, -2, 8],
     [10, 31, 48, 57, 65, 70, 97, 102],
     [9, 13, 32, 34, 35, 37, 44, 58],
     [60, 62, 64, 92, 94, 96, 127, -128],
     [-65, -64, -33, -32, -17, -16, -9, -8],
     [-5, -4, -3, -2, 31, 59, 63, 91],
     [93, 123, 125, 13, 33, 35, 37, 44],
     [58, 59, 61, 62, 63, 64, 82, 91],
     [93, 95, 114, 126, 127, -64, -33, -32],
     [-17, -16, -9, -8, -5, -4, -3, -2],
     [8, 10, 31, 36, 57, 65, 90, 97],
     [122, 9, 13, 32, 34, 35, 37, 44],
     [58, 59, 60, 61, 62, 63, 64, 92],
     [94, 96, 127, -128, -65, -64, -33, -32],
     [-17, -16, -9, -8, -5, -4, -3, -2],
     [31, 91, 93, 123, 125, 13, 33, 35],
     [37, 39, 44, 47, 58, 59, 61, 62],
     [63, 64, 91, 93, 96, 126, 127, -64],
     [-33, -32, -17, -16, -9, -8, -5, -4],
     [-3, -2, 8, 10, 31, 36, 41, 42],
     [57, 65, 90, 95, 122, 13, 33, 35],
     [37, 39, 44, 47, 58, 59, 61, 62],
     [63, 64, 91, 93, 96, 126, 127, -64],
     [-33, -32, -17, -16, -9, -8, -5, -4],
     [-3, -2, 8, 10, 31, 36, 41, 42],
     [57, 65, 90, 95, 122, 13, 33, 37],
     [39, 59, 62, 63, 126, 127, -64, -33],
     [-32, -17, -16, -9, -8, -5, -4, -3],
     [-2, 8, 10, 31, 42, 43, 45, 46],
     [48, 57, 65, 70, 71, 90, 95, 96],
     [97, 102, 103, 122, 13, 33, 37, 39],
     [59, 62, 63, 126, 127, -64, -33, -32],
     [-17, -16, -9, -8, -5, -4, -3, -2],
     [8, 10, 31, 42, 43, 45, 46, 48],
     [57, 65, 70, 71, 90, 95, 96, 97],
     [102, 103, 122, 13, 33, 35, 37, 44],
     [58, 59, 61, 62, 63, 64, 66, 86],
     [91, 93, 95, 98, 118, 126, 127, -64],
     [-33, -32, -17, -16, -9, -8, -5, -4],
     [-3, -2, 8, 10, 31, 36, 57, 65],
     [90, 97, 122, 9, 13, 32, 34, 35],
     [37, 44, 58, 59, 60, 61, 62, 63],
     [64, 92, 94, 96, 127, -128, -65, -64],
     [-33, -32, -17, -16, -9, -8, -5, -4],
     [-3, -2, 31, 91, 93, 123, 125, 13],
     [33, 35, 37, 44, 58, 59, 61, 62],
     [63, 64, 73, 91, 93, 95, 105, 126],
     [127, -64, -33, -32, -17, -16, -9, -8],
     [-5, -4, -3, -2, 8, 10, 31, 36],
     [57, 65, 90, 97, 122, 13, 33, 35],
     [37, 44, 58, 59, 61, 62, 63, 64],
     [68, 91, 93, 95, 100, 126, 127, -64],
     [-33, -32, -17, -16, -9, -8, -5, -4],
     [-3, -2, 8, 10, 31, 36, 57, 65],
     [90, 97, 122, 9, 13, 32, 34, 35],
     [37, 44, 58, 59, 60, 61, 62, 63],
     [64, 92, 94, 96, 127, -128, -65, -64],
     [-33, -32, -17, -16, -9, -8, -5, -4],
     [-3, -2, 31, 91, 93, 123, 125, 13],
     [33, 35, 37, 39, 44, 47, 58, 59],
     [61, 62, 63, 64, 91, 93, 96, 126],
     [127, -64, -33, -32, -17, -16, -9, -8],
     [-5, -4, -3, -2, 8, 10, 31, 36],
     [41, 42, 57, 65, 90, 95, 122, 13],
     [33, 35, 37, 39, 44, 47, 58, 59],
     [61, 62, 63, 64, 91, 93, 96, 126],
     [127, -64, -33, -32, -17, -16, -9, -8],
     [-5, -4, -3, -2, 8, 10, 31, 36],
     [41, 42, 57, 65, 90, 95, 122, 13],
     [33, 37, 39, 59, 62, 63, 126, 127],
     [-64, -33, -32, -17, -16, -9, -8, -5],
     [-4, -3, -2, 8, 10, 31, 42, 43],
     [45, 46, 48, 57, 65, 70, 71, 90],
     [95, 96, 97, 102, 103, 122, 13, 33],
     [37, 39, 59, 62, 63, 126, 127, -64],
     [-33, -32, -17, -16, -9, -8, -5, -4],
     [-3, -2, 8, 10, 31, 42, 43, 45],
     [46, 48, 57, 65, 70, 71, 90, 95],
     [96, 97, 102, 103, 122, 13, 33, 35],
     [37, 44, 58, 59, 61, 62, 63, 64],
     [82, 91, 93, 95, 114, 126, 127, -64],
     [-33, -32, -17, -16, -9, -8, -5, -4],
     [-3, -2, 8, 10, 31, 36, 57, 65],
     [90, 97, 122, 13, 33, 35, 37, 44],
     [58, 59, 61, 62, 63, 64, 65, 91],
     [93, 95, 97, 126, 127, -64, -33, -32],
     [-17, -16, -9, -8, -5, -4, -3, -2],
     [8, 10, 31, 36, 57, 66, 90, 98],
     [122, 13, 33, 35, 37, 44, 58, 59],
     [61, 62, 63, 64, 78, 91, 93, 95],
     [110, 126, 127, -64, -33, -32, -17, -16],
     [-9, -8, -5, -4, -3, -2, 8, 10],
     [31, 36, 57, 65, 90, 97, 122, 13],
     [33, 35, 37, 44, 58, 59, 61, 62],
     [63, 64, 83, 91, 93, 95, 115, 126],
     [127, -64, -33, -32, -17, -16, -9, -8],
     [-5, -4, -3, -2, 8, 10, 31, 36],
     [57, 65, 90, 97, 122, 13, 33, 35],
     [37, 44, 58, 59, 61, 62, 63, 64],
     [80, 91, 93, 95, 112, 126, 127, -64],
     [-33, -32, -17, -16, -9, -8, -5, -4]]"

definition smp_trans_keys_65 :: "int list list" where
  "smp_trans_keys_65 =
    [[-3, -2, 8, 10, 31, 36, 57, 65],
     [90, 97, 122, 13, 33, 35, 37, 44],
     [58, 59, 61, 62, 63, 64, 79, 91],
     [93, 95, 111, 126, 127, -64, -33, -32],
     [-17, -16, -9, -8, -5, -4, -3, -2],
     [8, 10, 31, 36, 57, 65, 90, 97],
     [122, 13, 33, 35, 37, 44, 58, 59],
     [61, 62, 63, 64, 82, 91, 93, 95],
     [114, 126, 127, -64, -33, -32, -17, -16],
     [-9, -8, -5, -4, -3, -2, 8, 10],
     [31, 36, 57, 65, 90, 97, 122, 13],
     [33, 35, 37, 44, 58, 59, 61, 62],
     [63, 64, 84, 91, 93, 95, 116, 126],
     [127, -64, -33, -32, -17, -16, -9, -8],
     [-5, -4, -3, -2, 8, 10, 31, 36],
     [57, 65, 90, 97, 122, 9, 13, 32],
     [34, 35, 37, 44, 58, 59, 60, 61],
     [62, 63, 64, 92, 94, 96, 127, -128],
     [-65, -64, -33, -32, -17, -16, -9, -8],
     [-5, -4, -3, -2, 31, 91, 93, 123],
     [125, 13, 33, 35, 37, 39, 44, 47],
     [58, 59, 61, 62, 63, 64, 83, 84],
     [85, 87, 91, 93, 96, 115, 116, 117],
     [119, 126, 127, -64, -33, -32, -17, -16],
     [-9, -8, -5, -4, -3, -2, 8, 10],
     [31, 36, 41, 42, 57, 65, 90, 95],
     [122, 13, 33, 35, 37, 39, 44, 47],
     [58, 59, 61, 62, 63, 64, 91, 93],
     [96, 126, 127, -64, -33, -32, -17, -16],
     [-9, -8, -5, -4, -3, -2, 8, 10],
     [31, 36, 41, 42, 57, 65, 90, 95],
     [122, 13, 33, 37, 39, 59, 62, 63],
     [126, 127, -64, -33, -32, -17, -16, -9],
     [-8, -5, -4, -3, -2, 8, 10, 31],
     [42, 43, 45, 46, 48, 57, 65, 70],
     [71, 90, 95, 96, 97, 102, 103, 122],
     [13, 33, 37, 39, 59, 62, 63, 126],
     [127, -64, -33, -32, -17, -16, -9, -8],
     [-5, -4, -3, -2, 8, 10, 31, 42],
     [43, 45, 46, 48, 57, 65, 70, 71],
     [90, 95, 96, 97, 102, 103, 122, 13],
     [33, 35, 37, 39, 44, 47, 58, 59],
     [61, 62, 63, 64, 67, 91, 93, 96],
     [99, 126, 127, -64, -33, -32, -17, -16],
     [-9, -8, -5, -4, -3, -2, 8, 10],
     [31, 36, 41, 42, 57, 65, 90, 95],
     [122, 13, 33, 35, 37, 39, 44, 47],
     [58, 59, 61, 62, 63, 64, 84, 91],
     [93, 96, 116, 126, 127, -64, -33, -32],
     [-17, -16, -9, -8, -5, -4, -3, -2],
     [8, 10, 31, 36, 41, 42, 57, 65],
     [90, 95, 122, 13, 33, 35, 37, 39],
     [44, 47, 58, 59, 61, 62, 63, 64],
     [80, 91, 93, 96, 112, 126, 127, -64],
     [-33, -32, -17, -16, -9, -8, -5, -4],
     [-3, -2, 8, 10, 31, 36, 41, 42],
     [57, 65, 90, 95, 122, 13, 33, 35],
     [37, 39, 44, 47, 58, 59, 61, 62],
     [63, 64, 91, 93, 96, 126, 127, -64],
     [-33, -32, -17, -16, -9, -8, -5, -4],
     [-3, -2, 8, 10, 31, 36, 41, 42],
     [57, 65, 90, 95, 122, 13, 33, 35],
     [37, 39, 44, 47, 58, 59, 61, 62],
     [63, 64, 67, 76, 91, 93, 96, 99],
     [108, 126, 127, -64, -33, -32, -17, -16],
     [-9, -8, -5, -4, -3, -2, 8, 10],
     [31, 36, 41, 42, 57, 65, 90, 95],
     [122, 13, 33, 35, 37, 39, 44, 47],
     [58, 59, 61, 62, 63, 64, 80, 91],
     [93, 96, 112, 126, 127, -64, -33, -32],
     [-17, -16, -9, -8, -5, -4, -3, -2],
     [8, 10, 31, 36, 41, 42, 57, 65],
     [90, 95, 122, 13, 33, 35, 37, 39],
     [44, 47, 58, 59, 61, 62, 63, 64],
     [91, 93, 96, 126, 127, -64, -33, -32],
     [-17, -16, -9, -8, -5, -4, -3, -2],
     [8, 10, 31, 36, 41, 42, 57, 65],
     [90, 95, 122, 13, 33, 35, 37, 39],
     [44, 47, 58, 59, 61, 62, 63, 64],
     [83, 91, 93, 96, 115, 126, 127, -64],
     [-33, -32, -17, -16, -9, -8, -5, -4],
     [-3, -2, 8, 10, 31, 36, 41, 42],
     [57, 65, 90, 95, 122, 13, 33, 35],
     [37, 39, 44, 47, 58, 59, 61, 62],
     [63, 64, 91, 93, 96, 126, 127, -64],
     [-33, -32, -17, -16, -9, -8, -5, -4],
     [-3, -2, 8, 10, 31, 36, 41, 42],
     [57, 65, 90, 95, 122, 13, 33, 35],
     [37, 39, 44, 47, 58, 59, 61, 62],
     [63, 64, 68, 91, 93, 96, 100, 126],
     [127, -64, -33, -32, -17, -16, -9, -8],
     [-5, -4, -3, -2, 8, 10, 31, 36],
     [41, 42, 57, 65, 90, 95, 122, 13],
     [33, 35, 37, 39, 44, 47, 58, 59],
     [61, 62, 63, 64, 80, 91, 93, 96],
     [112, 126, 127, -64, -33, -32, -17, -16],
     [-9, -8, -5, -4, -3, -2, 8, 10],
     [31, 36, 41, 42, 57, 65, 90, 95],
     [122, 13, 33, 35, 37, 39, 44, 47],
     [58, 59, 61, 62, 63, 64, 91, 93],
     [96, 126, 127, -64, -33, -32, -17, -16],
     [-9, -8, -5, -4, -3, -2, 8, 10],
     [31, 36, 41, 42, 57, 65, 90, 95],
     [122, 13, 33, 35, 37, 39, 44, 47],
     [58, 59, 61, 62, 63, 64, 83, 91],
     [93, 96, 115, 126, 127, -64, -33, -32],
     [-17, -16, -9, -8, -5, -4, -3, -2],
     [8, 10, 31, 36, 41, 42, 57, 65],
     [90, 95, 122, 13, 33, 35, 37, 39],
     [44, 47, 58, 59, 61, 62, 63, 64],
     [83, 91, 93, 96, 115, 126, 127, -64],
     [-33, -32, -17, -16, -9, -8, -5, -4],
     [-3, -2, 8, 10, 31, 36, 41, 42],
     [57, 65, 90, 95, 122, 13, 33, 35],
     [37, 39, 44, 47, 58, 59, 61, 62],
     [63, 64, 91, 93, 96, 126, 127, -64],
     [-33, -32, -17, -16, -9, -8, -5, -4],
     [-3, -2, 8, 10, 31, 36, 41, 42],
     [57, 65, 90, 95, 122, 13, 33, 37],
     [48, 49, 50, 58, 59, 61, 63, 64],
     [95, 126, 127, -64, -33, -32, -17, -16],
     [-9, -8, -5, -4, -3, -2, 8, 10],
     [31, 35, 47, 51, 57, 65, 90, 97],
     [122, 13, 33, 37, 45, 46, 58, 59],
     [61, 63, 64, 95, 126, 127, -64, -33],
     [-32, -17, -16, -9, -8, -5, -4, -3],
     [-2, 8, 10, 31, 35, 47, 48, 57],
     [65, 90, 97, 122, 13, 33, 37, 48],
     [49, 50, 58, 59, 61, 63, 64, 95],
     [126, 127, -64, -33, -32, -17, -16, -9],
     [-8, -5, -4, -3, -2, 8, 10, 31],
     [35, 47, 51, 57, 65, 90, 97, 122],
     [13, 33, 37, 45, 46, 58, 59, 61],
     [63, 64, 95, 126, 127, -64, -33, -32],
     [-17, -16, -9, -8, -5, -4, -3, -2],
     [8, 10, 31, 35, 47, 48, 57, 65],
     [90, 97, 122, 13, 33, 37, 48, 49],
     [50, 58, 59, 61, 63, 64, 95, 126],
     [127, -64, -33, -32, -17, -16, -9, -8],
     [-5, -4, -3, -2, 8, 10, 31, 35],
     [47, 51, 57, 65, 90, 97, 122, 13],
     [33, 37, 45, 46, 58, 59, 61, 62],
     [63, 64, 95, 126, 127, -64, -33, -32],
     [-17, -16, -9, -8, -5, -4, -3, -2],
     [8, 10, 31, 35, 47, 48, 57, 65],
     [90, 97, 122, 13, 33, 37, 45, 46],
     [58, 59, 61, 62, 63, 64, 95, 126],
     [127, -64, -33, -32, -17, -16, -9, -8],
     [-5, -4, -3, -2, 8, 10, 31, 35],
     [47, 48, 57, 65, 90, 97, 122, 13]]"

definition smp_trans_keys_66 :: "int list list" where
  "smp_trans_keys_66 =
    [[33, 37, 45, 46, 58, 59, 61, 62],
     [63, 64, 95, 126, 127, -64, -33, -32],
     [-17, -16, -9, -8, -5, -4, -3, -2],
     [8, 10, 31, 35, 47, 48, 57, 65],
     [90, 97, 122, 13, 33, 37, 45, 46],
     [53, 58, 59, 61, 62, 63, 64, 95],
     [126, 127, -64, -33, -32, -17, -16, -9],
     [-8, -5, -4, -3, -2, 8, 10, 31],
     [35, 47, 48, 52, 54, 57, 65, 90],
     [97, 122, 13, 33, 37, 45, 46, 58],
     [59, 61, 62, 63, 64, 95, 126, 127],
     [-64, -33, -32, -17, -16, -9, -8, -5],
     [-4, -3, -2, 8, 10, 31, 35, 47],
     [48, 53, 54, 57, 65, 90, 97, 122],
     [13, 33, 37, 45, 46, 58, 59, 61],
     [63, 64, 95, 126, 127, -64, -33, -32],
     [-17, -16, -9, -8, -5, -4, -3, -2],
     [8, 10, 31, 35, 47, 48, 57, 65],
     [90, 97, 122, 13, 33, 37, 45, 46],
     [58, 59, 61, 63, 64, 95, 126, 127],
     [-64, -33, -32, -17, -16, -9, -8, -5],
     [-4, -3, -2, 8, 10, 31, 35, 47],
     [48, 57, 65, 90, 97, 122, 13, 33],
     [37, 45, 46, 53, 58, 59, 61, 63],
     [64, 95, 126, 127, -64, -33, -32, -17],
     [-16, -9, -8, -5, -4, -3, -2, 8],
     [10, 31, 35, 47, 48, 52, 54, 57],
     [65, 90, 97, 122, 13, 33, 37, 45],
     [46, 58, 59, 61, 63, 64, 95, 126],
     [127, -64, -33, -32, -17, -16, -9, -8],
     [-5, -4, -3, -2, 8, 10, 31, 35],
     [47, 48, 53, 54, 57, 65, 90, 97],
     [122, 13, 33, 37, 45, 46, 58, 59],
     [61, 63, 64, 95, 126, 127, -64, -33],
     [-32, -17, -16, -9, -8, -5, -4, -3],
     [-2, 8, 10, 31, 35, 47, 48, 57],
     [65, 90, 97, 122, 13, 33, 37, 45],
     [46, 58, 59, 61, 63, 64, 95, 126],
     [127, -64, -33, -32, -17, -16, -9, -8],
     [-5, -4, -3, -2, 8, 10, 31, 35],
     [47, 48, 57, 65, 90, 97, 122, 13],
     [33, 37, 45, 46, 53, 58, 59, 61],
     [63, 64, 95, 126, 127, -64, -33, -32],
     [-17, -16, -9, -8, -5, -4, -3, -2],
     [8, 10, 31, 35, 47, 48, 52, 54],
     [57, 65, 90, 97, 122, 13, 33, 37],
     [45, 46, 58, 59, 61, 63, 64, 95],
     [126, 127, -64, -33, -32, -17, -16, -9],
     [-8, -5, -4, -3, -2, 8, 10, 31],
     [35, 47, 48, 53, 54, 57, 65, 90],
     [97, 122, 13, 33, 37, 45, 46, 58],
     [59, 61, 63, 64, 95, 126, 127, -64],
     [-33, -32, -17, -16, -9, -8, -5, -4],
     [-3, -2, 8, 10, 31, 35, 47, 48],
     [57, 65, 90, 97, 122, 13, 33, 37],
     [45, 46, 58, 59, 61, 63, 64, 95],
     [126, 127, -64, -33, -32, -17, -16, -9],
     [-8, -5, -4, -3, -2, 8, 10, 31],
     [35, 47, 48, 57, 65, 90, 97, 122],
     [13, 33, 37, 45, 46, 53, 58, 59],
     [61, 63, 64, 95, 126, 127, -64, -33],
     [-32, -17, -16, -9, -8, -5, -4, -3],
     [-2, 8, 10, 31, 35, 47, 48, 52],
     [54, 57, 65, 90, 97, 122, 13, 33],
     [37, 45, 46, 58, 59, 61, 63, 64],
     [95, 126, 127, -64, -33, -32, -17, -16],
     [-9, -8, -5, -4, -3, -2, 8, 10],
     [31, 35, 47, 48, 53, 54, 57, 65],
     [90, 97, 122, 13, 58, 127, -64, -33],
     [-32, -17, -16, -9, -8, -5, -4, -3],
     [-2, 8, 10, 31, 9, 32, 33, 37],
     [39, 58, 78, 110, 126, 42, 43, 45],
     [46, 48, 57, 65, 90, 95, 122, 9],
     [32, 33, 37, 39, 58, 84, 116, 126],
     [42, 43, 45, 46, 48, 57, 65, 90],
     [95, 122, 9, 32, 33, 37, 39, 45],
     [46, 58, 126, 42, 43, 48, 57, 65],
     [90, 95, 122, 9, 32, 33, 37, 39],
     [58, 76, 108, 126, 42, 43, 45, 46],
     [48, 57, 65, 90, 95, 122, 9, 32],
     [33, 37, 39, 58, 69, 101, 126, 42],
     [43, 45, 46, 48, 57, 65, 90, 95],
     [122, 9, 32, 33, 37, 39, 58, 78],
     [110, 126, 42, 43, 45, 46, 48, 57],
     [65, 90, 95, 122, 9, 32, 33, 37],
     [39, 58, 71, 103, 126, 42, 43, 45],
     [46, 48, 57, 65, 90, 95, 122, 9],
     [32, 33, 37, 39, 58, 84, 116, 126],
     [42, 43, 45, 46, 48, 57, 65, 90],
     [95, 122, 9, 32, 33, 37, 39, 58],
     [72, 104, 126, 42, 43, 45, 46, 48],
     [57, 65, 90, 95, 122, 9, 32, 33],
     [37, 39, 58, 69, 101, 126, 42, 43],
     [45, 46, 48, 57, 65, 90, 95, 122],
     [9, 32, 33, 37, 39, 58, 81, 113],
     [126, 42, 43, 45, 46, 48, 57, 65],
     [90, 95, 122, 9, 32, 33, 37, 39],
     [58, 126, 42, 43, 45, 46, 48, 57],
     [65, 90, 95, 122, 9, 32, 58, 9],
     [13, 32, 48, 57, 10, 9, 32, 9],
     [32, 48, 57, 9, 13, 32, 48, 57],
     [9, 13, 32, 289, 293, 295, 321, 322],
     [323, 329, 333, 334, 335, 336, 338, 339],
     [341, 382, 545, 549, 551, 638, 298, 299],
     [301, 302, 304, 313, 324, 346, 351, 378],
     [554, 555, 557, 558, 560, 569, 577, 602],
     [607, 634, 10, 9, 32, 9, 32, 289],
     [293, 295, 321, 322, 323, 329, 333, 334],
     [335, 336, 338, 339, 341, 382, 545, 549],
     [551, 638, 298, 299, 301, 302, 304, 313],
     [324, 346, 351, 378, 554, 555, 557, 558],
     [560, 569, 577, 602, 607, 634, 13, 289],
     [293, 295, 382, 298, 299, 301, 302, 304],
     [313, 321, 346, 351, 378, 13, 289, 293],
     [295, 323, 382, 298, 299, 301, 302, 304],
     [313, 321, 346, 351, 378, 13, 289, 293],
     [295, 331, 382, 298, 299, 301, 302, 304],
     [313, 321, 346, 351, 378, 13, 289, 293],
     [295, 382, 298, 299, 301, 302, 304, 313],
     [321, 346, 351, 378, 13, 289, 293, 295],
     [345, 382, 298, 299, 301, 302, 304, 313],
     [321, 346, 351, 378, 13, 289, 293, 295],
     [325, 382, 298, 299, 301, 302, 304, 313],
     [321, 346, 351, 378, 13, 289, 293, 295],
     [382, 298, 299, 301, 302, 304, 313, 321],
     [346, 351, 378, 13, 289, 293, 295, 321],
     [382, 298, 299, 301, 302, 304, 313, 322],
     [346, 351, 378, 13, 289, 293, 295, 334],
     [382, 298, 299, 301, 302, 304, 313, 321],
     [346, 351, 378, 13, 289, 293, 295, 323],
     [382, 298, 299, 301, 302, 304, 313, 321],
     [346, 351, 378, 13, 289, 293, 295, 325],
     [382, 298, 299, 301, 302, 304, 313, 321],
     [346, 351, 378, 13, 289, 293, 295, 332],
     [382, 298, 299, 301, 302, 304, 313, 321],
     [346, 351, 378, 13, 289, 293, 295, 382],
     [298, 299, 301, 302, 304, 313, 321, 346],
     [351, 378, 13, 289, 293, 295, 334, 382],
     [298, 299, 301, 302, 304, 313, 321, 346],
     [351, 378, 13, 289, 293, 295, 326, 342],
     [382, 298, 299, 301, 302, 304, 313, 321],
     [346, 351, 378, 13, 289, 293, 295, 335],
     [382, 298, 299, 301, 302, 304, 313, 321],
     [346, 351, 378, 13, 289, 293, 295, 382],
     [298, 299, 301, 302, 304, 313, 321, 346],
     [351, 378, 13, 289, 293, 295, 329, 382],
     [298, 299, 301, 302, 304, 313, 321, 346],
     [351, 378, 13, 289, 293, 295, 340, 382],
     [298, 299, 301, 302, 304, 313, 321, 346],
     [351, 378, 13, 289, 293, 295, 325, 382]]"

definition smp_trans_keys_67 :: "int list list" where
  "smp_trans_keys_67 =
    [[298, 299, 301, 302, 304, 313, 321, 346],
     [351, 378, 13, 289, 293, 295, 382, 298],
     [299, 301, 302, 304, 313, 321, 346, 351],
     [378, 13, 289, 293, 295, 325, 382, 298],
     [299, 301, 302, 304, 313, 321, 346, 351],
     [378, 13, 289, 293, 295, 339, 382, 298],
     [299, 301, 302, 304, 313, 321, 346, 351],
     [378, 13, 289, 293, 295, 339, 382, 298],
     [299, 301, 302, 304, 313, 321, 346, 351],
     [378, 13, 289, 293, 295, 321, 382, 298],
     [299, 301, 302, 304, 313, 322, 346, 351],
     [378, 13, 289, 293, 295, 327, 382, 298],
     [299, 301, 302, 304, 313, 321, 346, 351],
     [378, 13, 289, 293, 295, 325, 382, 298],
     [299, 301, 302, 304, 313, 321, 346, 351],
     [378, 13, 289, 293, 295, 382, 298, 299],
     [301, 302, 304, 313, 321, 346, 351, 378],
     [13, 289, 293, 295, 335, 382, 298, 299],
     [301, 302, 304, 313, 321, 346, 351, 378],
     [13, 289, 293, 295, 340, 382, 298, 299],
     [301, 302, 304, 313, 321, 346, 351, 378],
     [13, 289, 293, 295, 329, 382, 298, 299],
     [301, 302, 304, 313, 321, 346, 351, 378],
     [13, 289, 293, 295, 326, 382, 298, 299],
     [301, 302, 304, 313, 321, 346, 351, 378],
     [13, 289, 293, 295, 345, 382, 298, 299],
     [301, 302, 304, 313, 321, 346, 351, 378],
     [13, 289, 293, 295, 382, 298, 299, 301],
     [302, 304, 313, 321, 346, 351, 378, 13],
     [289, 293, 295, 336, 382, 298, 299, 301],
     [302, 304, 313, 321, 346, 351, 378, 13],
     [289, 293, 295, 340, 382, 298, 299, 301],
     [302, 304, 313, 321, 346, 351, 378, 13],
     [289, 293, 295, 329, 382, 298, 299, 301],
     [302, 304, 313, 321, 346, 351, 378, 13],
     [289, 293, 295, 335, 382, 298, 299, 301],
     [302, 304, 313, 321, 346, 351, 378, 13],
     [289, 293, 295, 334, 382, 298, 299, 301],
     [302, 304, 313, 321, 346, 351, 378, 13],
     [289, 293, 295, 339, 382, 298, 299, 301],
     [302, 304, 313, 321, 346, 351, 378, 13],
     [289, 293, 295, 382, 298, 299, 301, 302],
     [304, 313, 321, 346, 351, 378, 13, 289],
     [293, 295, 338, 341, 382, 298, 299, 301],
     [302, 304, 313, 321, 346, 351, 378, 13],
     [289, 293, 295, 321, 382, 298, 299, 301],
     [302, 304, 313, 322, 346, 351, 378, 13],
     [289, 293, 295, 323, 382, 298, 299, 301],
     [302, 304, 313, 321, 346, 351, 378, 13],
     [289, 293, 295, 331, 382, 298, 299, 301],
     [302, 304, 313, 321, 346, 351, 378, 13],
     [289, 293, 295, 382, 298, 299, 301, 302],
     [304, 313, 321, 346, 351, 378, 13, 289],
     [293, 295, 322, 332, 339, 382, 298, 299],
     [301, 302, 304, 313, 321, 346, 351, 378],
     [13, 289, 293, 295, 332, 382, 298, 299],
     [301, 302, 304, 313, 321, 346, 351, 378],
     [13, 289, 293, 295, 329, 382, 298, 299],
     [301, 302, 304, 313, 321, 346, 351, 378],
     [13, 289, 293, 295, 339, 382, 298, 299],
     [301, 302, 304, 313, 321, 346, 351, 378],
     [13, 289, 293, 295, 328, 382, 298, 299],
     [301, 302, 304, 313, 321, 346, 351, 378],
     [13, 289, 293, 295, 382, 298, 299, 301],
     [302, 304, 313, 321, 346, 351, 378, 13],
     [289, 293, 295, 332, 382, 298, 299, 301],
     [302, 304, 313, 321, 346, 351, 378, 13],
     [289, 293, 295, 382, 298, 299, 301, 302],
     [304, 313, 321, 346, 351, 378, 13, 289],
     [293, 295, 328, 382, 298, 299, 301, 302],
     [304, 313, 321, 346, 351, 378, 13, 289],
     [293, 295, 382, 298, 299, 301, 302, 304],
     [313, 321, 346, 351, 378, 13, 289, 293],
     [295, 325, 382, 298, 299, 301, 302, 304],
     [313, 321, 346, 351, 378, 13, 289, 293],
     [295, 326, 327, 382, 298, 299, 301, 302],
     [304, 313, 321, 346, 351, 378, 13, 289],
     [293, 295, 325, 382, 298, 299, 301, 302],
     [304, 313, 321, 346, 351, 378, 13, 289],
     [293, 295, 338, 382, 298, 299, 301, 302],
     [304, 313, 321, 346, 351, 378, 13, 289],
     [293, 295, 382, 298, 299, 301, 302, 304],
     [313, 321, 346, 351, 378, 13, 289, 293],
     [295, 329, 382, 298, 299, 301, 302, 304],
     [313, 321, 346, 351, 378, 13, 289, 293],
     [295, 339, 382, 298, 299, 301, 302, 304],
     [313, 321, 346, 351, 378, 13, 289, 293],
     [295, 340, 382, 298, 299, 301, 302, 304],
     [313, 321, 346, 351, 378, 13, 289, 293],
     [295, 325, 382, 298, 299, 301, 302, 304],
     [313, 321, 346, 351, 378, 13, 289, 293],
     [295, 338, 382, 298, 299, 301, 302, 304],
     [313, 321, 346, 351, 378, 13, 289, 293],
     [295, 382, 298, 299, 301, 302, 304, 313],
     [321, 346, 351, 378, 13, 289, 293, 295],
     [340, 341, 382, 298, 299, 301, 302, 304],
     [313, 321, 346, 351, 378, 13, 289, 293],
     [295, 335, 382, 298, 299, 301, 302, 304],
     [313, 321, 346, 351, 378, 13, 289, 293],
     [295, 338, 382, 298, 299, 301, 302, 304],
     [313, 321, 346, 351, 378, 13, 289, 293],
     [295, 325, 382, 298, 299, 301, 302, 304],
     [313, 321, 346, 351, 378, 13, 289, 293],
     [295, 382, 298, 299, 301, 302, 304, 313],
     [321, 346, 351, 378, 13, 289, 293, 295],
     [322, 382, 298, 299, 301, 302, 304, 313],
     [321, 346, 351, 378, 13, 289, 293, 295],
     [339, 382, 298, 299, 301, 302, 304, 313],
     [321, 346, 351, 378, 13, 289, 293, 295],
     [323, 382, 298, 299, 301, 302, 304, 313],
     [321, 346, 351, 378, 13, 289, 293, 295],
     [338, 382, 298, 299, 301, 302, 304, 313],
     [321, 346, 351, 378, 13, 289, 293, 295],
     [329, 382, 298, 299, 301, 302, 304, 313],
     [321, 346, 351, 378, 13, 289, 293, 295],
     [322, 382, 298, 299, 301, 302, 304, 313],
     [321, 346, 351, 378, 13, 289, 293, 295],
     [325, 382, 298, 299, 301, 302, 304, 313],
     [321, 346, 351, 378, 13, 289, 293, 295],
     [382, 298, 299, 301, 302, 304, 313, 321],
     [346, 351, 378, 13, 289, 293, 295, 336],
     [382, 298, 299, 301, 302, 304, 313, 321],
     [346, 351, 378, 13, 289, 293, 295, 324],
     [382, 298, 299, 301, 302, 304, 313, 321],
     [346, 351, 378, 13, 289, 293, 295, 321],
     [382, 298, 299, 301, 302, 304, 313, 322],
     [346, 351, 378, 13, 289, 293, 295, 340],
     [382, 298, 299, 301, 302, 304, 313, 321],
     [346, 351, 378, 13, 289, 293, 295, 325],
     [382, 298, 299, 301, 302, 304, 313, 321],
     [346, 351, 378, 13, 289, 293, 295, 382],
     [298, 299, 301, 302, 304, 313, 321, 346],
     [351, 378, 13, 545, 549, 551, 638, 554],
     [555, 557, 558, 560, 569, 577, 602, 607],
     [634, 9, 13, 32, 48, 57, 9, 13],
     [32, 48, 57, 9, 13, 32, 48, 57],
     [9, 13, 32, 48, 57, 9, 13, 32],
     [48, 57, 9, 13, 32, 48, 57, 9],
     [13, 32, 48, 57, 9, 13, 32, 48],
     [57, 9, 13, 32, 10, 9, 13, 32],
     [33, 37, 39, 67, 70, 73, 75, 76],
     [77, 80, 82, 83, 84, 86, 99, 102],
     [105, 107, 108, 109, 112, 114, 115, 116],
     [118, 126, 42, 43, 45, 46, 48, 57],
     [65, 90, 95, 122, 9, 13, 32, 127],
     [-64, -33, -32, -17, -16, -9, -8, -5],
     [-4, -3, -2, 31, 13, 46, 73, 105],
     [32, 33, 35, 37, 58, 61, 64, 95],
     [126, 36, 59, 63, 90, 97, 122, 33],
     [37, 58, 61, 64, 95, 126, 35, 59]]"

definition smp_trans_keys_68 :: "int list list" where
  "smp_trans_keys_68 =
    [[63, 90, 97, 122, 48, 57, 65, 70],
     [97, 102, 48, 57, 65, 70, 97, 102],
     [33, 37, 61, 64, 95, 126, 36, 46],
     [48, 57, 65, 90, 97, 122, 48, 57],
     [65, 70, 97, 102, 48, 57, 65, 70],
     [97, 102, 48, 49, 50, 91, 51, 57],
     [65, 90, 97, 122, 45, 46, 95, 48],
     [57, 65, 90, 97, 122, 45, 95, 48],
     [57, 65, 90, 97, 122, 45, 46, 95],
     [48, 57, 65, 90, 97, 122, 48, 57],
     [65, 90, 97, 122, 32, 45, 46, 58],
     [63, 95, 48, 57, 65, 90, 97, 122],
     [45, 95, 48, 57, 65, 90, 97, 122],
     [32, 58, 63, 48, 57, 65, 90, 97],
     [122, 48, 54, 49, 53, 55, 57, 48],
     [49, 57, 48, 49, 57, 49, 57, 32],
     [63, 32, 33, 37, 61, 95, 126, 36],
     [59, 63, 90, 97, 122, 48, 57, 65],
     [70, 97, 102, 48, 57, 65, 70, 97],
     [102, 32, 63, 48, 57, 32, 63, 48],
     [57, 32, 63, 48, 57, 32, 63, 48],
     [57, 32, 53, 63, 48, 52, 54, 57],
     [32, 53, 63, 48, 52, 54, 57, 32],
     [51, 63, 48, 50, 52, 57, 32, 63],
     [48, 53, 48, 49, 50, 51, 57, 65],
     [90, 97, 122, 45, 46, 95, 48, 57],
     [65, 90, 97, 122, 48, 49, 50, 51],
     [57, 65, 90, 97, 122, 45, 46, 95],
     [48, 57, 65, 90, 97, 122, 48, 49],
     [50, 51, 57, 65, 90, 97, 122, 32],
     [45, 46, 58, 63, 95, 48, 57, 65],
     [90, 97, 122, 32, 45, 46, 58, 63],
     [95, 48, 57, 65, 90, 97, 122, 32],
     [45, 46, 58, 63, 95, 48, 57, 65],
     [90, 97, 122, 32, 45, 46, 53, 58],
     [63, 95, 48, 52, 54, 57, 65, 90],
     [97, 122, 32, 45, 46, 58, 63, 95],
     [48, 53, 54, 57, 65, 90, 97, 122],
     [45, 46, 95, 48, 57, 65, 90, 97],
     [122, 45, 46, 95, 48, 57, 65, 90],
     [97, 122, 45, 46, 53, 95, 48, 52],
     [54, 57, 65, 90, 97, 122, 45, 46],
     [95, 48, 53, 54, 57, 65, 90, 97],
     [122, 45, 46, 95, 48, 57, 65, 90],
     [97, 122, 45, 46, 95, 48, 57, 65],
     [90, 97, 122, 45, 46, 53, 95, 48],
     [52, 54, 57, 65, 90, 97, 122, 45],
     [46, 95, 48, 53, 54, 57, 65, 90],
     [97, 122, 45, 46, 95, 48, 57, 65],
     [90, 97, 122, 45, 46, 95, 48, 57],
     [65, 90, 97, 122, 45, 46, 53, 95],
     [48, 52, 54, 57, 65, 90, 97, 122],
     [45, 46, 95, 48, 53, 54, 57, 65],
     [90, 97, 122, 58, 48, 57, 65, 70],
     [97, 102, 58, 48, 57, 65, 70, 97],
     [102, 58, 48, 57, 65, 70, 97, 102],
     [58, 48, 57, 65, 70, 97, 102, 58],
     [58, 48, 57, 65, 70, 97, 102, 58],
     [48, 57, 65, 70, 97, 102, 58, 48],
     [57, 65, 70, 97, 102, 58, 48, 57],
     [65, 70, 97, 102, 58, 58, 48, 57],
     [65, 70, 97, 102, 58, 48, 57, 65],
     [70, 97, 102, 58, 48, 57, 65, 70],
     [97, 102, 58, 48, 57, 65, 70, 97],
     [102, 58, 58, 48, 57, 65, 70, 97],
     [102, 58, 48, 57, 65, 70, 97, 102],
     [58, 48, 57, 65, 70, 97, 102, 58],
     [48, 57, 65, 70, 97, 102, 58, 58],
     [48, 57, 65, 70, 97, 102, 58, 48],
     [57, 65, 70, 97, 102, 58, 48, 57],
     [65, 70, 97, 102, 58, 48, 57, 65],
     [70, 97, 102, 58, 58, 48, 57, 65],
     [70, 97, 102, 58, 48, 57, 65, 70],
     [97, 102, 58, 48, 57, 65, 70, 97],
     [102, 58, 48, 57, 65, 70, 97, 102],
     [58, 48, 49, 50, 58, 51, 57, 65],
     [70, 97, 102, 46, 58, 48, 57, 65],
     [70, 97, 102, 48, 49, 50, 51, 57],
     [46, 48, 49, 50, 51, 57, 46, 48],
     [49, 50, 51, 57, 93, 32, 58, 63],
     [93, 48, 57, 93, 48, 57, 53, 93],
     [48, 52, 54, 57, 93, 48, 53, 46],
     [48, 57, 46, 48, 57, 46, 53, 48],
     [52, 54, 57, 46, 48, 53, 46, 48],
     [57, 46, 48, 57, 46, 53, 48, 52],
     [54, 57, 46, 48, 53, 58, 48, 57],
     [65, 70, 97, 102, 58, 48, 57, 65],
     [70, 97, 102, 58, 58, 48, 57, 65],
     [70, 97, 102, 93, 48, 57, 65, 70],
     [97, 102, 93, 48, 57, 65, 70, 97],
     [102, 93, 48, 57, 65, 70, 97, 102],
     [46, 58, 48, 57, 65, 70, 97, 102],
     [46, 58, 48, 57, 65, 70, 97, 102],
     [46, 58, 48, 57, 65, 70, 97, 102],
     [46, 53, 58, 48, 52, 54, 57, 65],
     [70, 97, 102, 46, 58, 48, 53, 54],
     [57, 65, 70, 97, 102, 46, 58, 48],
     [57, 65, 70, 97, 102, 46, 58, 48],
     [57, 65, 70, 97, 102, 93, 48, 57],
     [65, 70, 97, 102, 58, 48, 57, 65],
     [70, 97, 102, 48, 49, 50, 93, 51],
     [57, 65, 70, 97, 102, 46, 58, 93],
     [48, 57, 65, 70, 97, 102, 58, 93],
     [48, 57, 65, 70, 97, 102, 58, 93],
     [48, 57, 65, 70, 97, 102, 58, 93],
     [48, 57, 65, 70, 97, 102, 46, 58],
     [93, 48, 57, 65, 70, 97, 102, 46],
     [58, 93, 48, 57, 65, 70, 97, 102],
     [46, 58, 93, 48, 57, 65, 70, 97],
     [102, 46, 53, 58, 93, 48, 52, 54],
     [57, 65, 70, 97, 102, 46, 58, 93],
     [48, 53, 54, 57, 65, 70, 97, 102],
     [46, 58, 93, 48, 57, 65, 70, 97],
     [102, 46, 58, 93, 48, 57, 65, 70],
     [97, 102, 58, 93, 48, 57, 65, 70],
     [97, 102, 48, 49, 50, 93, 51, 57],
     [65, 70, 97, 102, 46, 58, 93, 48],
     [57, 65, 70, 97, 102, 58, 93, 48],
     [57, 65, 70, 97, 102, 58, 93, 48],
     [57, 65, 70, 97, 102, 58, 93, 48],
     [49, 50, 51, 57, 65, 70, 97, 102],
     [46, 58, 93, 48, 57, 65, 70, 97],
     [102, 46, 58, 93, 48, 57, 65, 70],
     [97, 102, 46, 58, 93, 48, 57, 65],
     [70, 97, 102, 46, 53, 58, 93, 48],
     [52, 54, 57, 65, 70, 97, 102, 46],
     [58, 93, 48, 53, 54, 57, 65, 70],
     [97, 102, 46, 58, 93, 48, 57, 65],
     [70, 97, 102, 46, 58, 93, 48, 57],
     [65, 70, 97, 102, 58, 93, 48, 57],
     [65, 70, 97, 102, 48, 49, 50, 93],
     [51, 57, 65, 70, 97, 102, 46, 58],
     [93, 48, 57, 65, 70, 97, 102, 58],
     [93, 48, 57, 65, 70, 97, 102, 58],
     [93, 48, 57, 65, 70, 97, 102, 58],
     [93, 48, 49, 50, 51, 57, 65, 70],
     [97, 102, 46, 58, 93, 48, 57, 65],
     [70, 97, 102, 46, 58, 93, 48, 57],
     [65, 70, 97, 102, 46, 58, 93, 48],
     [57, 65, 70, 97, 102, 46, 53, 58],
     [93, 48, 52, 54, 57, 65, 70, 97],
     [102, 46, 58, 93, 48, 53, 54, 57],
     [65, 70, 97, 102, 46, 58, 93, 48],
     [57, 65, 70, 97, 102, 46, 58, 93],
     [48, 57, 65, 70, 97, 102, 58, 93],
     [48, 57, 65, 70, 97, 102, 48, 49],
     [50, 93, 51, 57, 65, 70, 97, 102],
     [46, 58, 93, 48, 57, 65, 70, 97],
     [102, 58, 93, 48, 57, 65, 70, 97],
     [102, 58, 93, 48, 57, 65, 70, 97]]"

definition smp_trans_keys_69 :: "int list list" where
  "smp_trans_keys_69 =
    [[102, 58, 93, 48, 49, 50, 51, 57],
     [65, 70, 97, 102, 46, 58, 93, 48],
     [57, 65, 70, 97, 102, 46, 58, 93],
     [48, 57, 65, 70, 97, 102, 46, 58],
     [93, 48, 57, 65, 70, 97, 102, 46],
     [53, 58, 93, 48, 52, 54, 57, 65],
     [70, 97, 102, 46, 58, 93, 48, 53],
     [54, 57, 65, 70, 97, 102, 46, 58],
     [93, 48, 57, 65, 70, 97, 102, 46],
     [58, 93, 48, 57, 65, 70, 97, 102],
     [58, 93, 48, 57, 65, 70, 97, 102],
     [48, 49, 50, 93, 51, 57, 65, 70],
     [97, 102, 46, 58, 93, 48, 57, 65],
     [70, 97, 102, 58, 93, 48, 57, 65],
     [70, 97, 102, 58, 93, 48, 57, 65],
     [70, 97, 102, 58, 93, 48, 49, 50],
     [51, 57, 65, 70, 97, 102, 46, 58],
     [93, 48, 57, 65, 70, 97, 102, 46],
     [58, 93, 48, 57, 65, 70, 97, 102],
     [46, 58, 93, 48, 57, 65, 70, 97],
     [102, 46, 53, 58, 93, 48, 52, 54],
     [57, 65, 70, 97, 102, 46, 58, 93],
     [48, 53, 54, 57, 65, 70, 97, 102],
     [46, 58, 93, 48, 57, 65, 70, 97],
     [102, 46, 58, 93, 48, 57, 65, 70],
     [97, 102, 58, 93, 48, 57, 65, 70],
     [97, 102, 58, 48, 49, 50, 93, 51],
     [57, 65, 70, 97, 102, 46, 58, 93],
     [48, 57, 65, 70, 97, 102, 58, 93],
     [48, 57, 65, 70, 97, 102, 58, 93],
     [48, 57, 65, 70, 97, 102, 58, 93],
     [48, 49, 50, 51, 57, 65, 70, 97],
     [102, 46, 58, 93, 48, 57, 65, 70],
     [97, 102, 46, 58, 93, 48, 57, 65],
     [70, 97, 102, 46, 58, 93, 48, 57],
     [65, 70, 97, 102, 46, 53, 58, 93],
     [48, 52, 54, 57, 65, 70, 97, 102],
     [46, 58, 93, 48, 53, 54, 57, 65],
     [70, 97, 102, 46, 58, 93, 48, 57],
     [65, 70, 97, 102, 46, 58, 93, 48],
     [57, 65, 70, 97, 102, 58, 93, 48],
     [57, 65, 70, 97, 102, 48, 57, 65],
     [70, 97, 102, 48, 57, 65, 70, 97],
     [102, 32, 33, 37, 47, 61, 63, 64],
     [95, 126, 36, 57, 58, 59, 65, 90],
     [97, 122, 48, 57, 65, 70, 97, 102],
     [48, 57, 65, 70, 97, 102, 32, 33],
     [37, 61, 91, 95, 126, 36, 59, 63],
     [90, 97, 122, 32, 33, 35, 37, 47],
     [58, 61, 64, 95, 126, 36, 59, 63],
     [90, 97, 122, 32, 33, 35, 37, 58],
     [61, 64, 91, 95, 126, 36, 59, 63],
     [90, 97, 122, 32, 33, 35, 37, 58],
     [61, 64, 95, 126, 36, 59, 63, 90],
     [97, 122, 33, 37, 58, 61, 64, 95],
     [126, 35, 59, 63, 90, 97, 122, 48],
     [57, 65, 70, 97, 102, 48, 57, 65],
     [70, 97, 102, 33, 37, 61, 64, 95],
     [126, 36, 46, 48, 57, 65, 90, 97],
     [122, 48, 57, 65, 70, 97, 102, 48],
     [57, 65, 70, 97, 102, 48, 49, 50],
     [91, 51, 57, 65, 90, 97, 122, 45],
     [46, 95, 48, 57, 65, 90, 97, 122],
     [45, 95, 48, 57, 65, 90, 97, 122],
     [45, 46, 95, 48, 57, 65, 90, 97],
     [122, 48, 57, 65, 90, 97, 122, 32],
     [45, 46, 47, 58, 63, 95, 48, 57],
     [65, 90, 97, 122, 45, 95, 48, 57],
     [65, 90, 97, 122, 32, 47, 58, 63],
     [48, 57, 65, 90, 97, 122, 48, 54],
     [49, 53, 55, 57, 48, 49, 57, 48],
     [49, 57, 49, 57, 32, 47, 63, 32],
     [47, 63, 48, 57, 32, 47, 63, 48],
     [57, 32, 47, 63, 48, 57, 32, 47],
     [63, 48, 57, 32, 47, 53, 63, 48],
     [52, 54, 57, 32, 47, 53, 63, 48],
     [52, 54, 57, 32, 47, 51, 63, 48],
     [50, 52, 57, 32, 47, 63, 48, 53],
     [48, 49, 50, 51, 57, 65, 90, 97],
     [122, 45, 46, 95, 48, 57, 65, 90],
     [97, 122, 48, 49, 50, 51, 57, 65],
     [90, 97, 122, 45, 46, 95, 48, 57],
     [65, 90, 97, 122, 48, 49, 50, 51],
     [57, 65, 90, 97, 122, 32, 45, 46],
     [47, 58, 63, 95, 48, 57, 65, 90],
     [97, 122, 32, 45, 46, 47, 58, 63],
     [95, 48, 57, 65, 90, 97, 122, 32],
     [45, 46, 47, 58, 63, 95, 48, 57],
     [65, 90, 97, 122, 32, 45, 46, 47],
     [53, 58, 63, 95, 48, 52, 54, 57],
     [65, 90, 97, 122, 32, 45, 46, 47],
     [58, 63, 95, 48, 53, 54, 57, 65],
     [90, 97, 122, 45, 46, 95, 48, 57],
     [65, 90, 97, 122, 45, 46, 95, 48],
     [57, 65, 90, 97, 122, 45, 46, 53],
     [95, 48, 52, 54, 57, 65, 90, 97],
     [122, 45, 46, 95, 48, 53, 54, 57],
     [65, 90, 97, 122, 45, 46, 95, 48],
     [57, 65, 90, 97, 122, 45, 46, 95],
     [48, 57, 65, 90, 97, 122, 45, 46],
     [53, 95, 48, 52, 54, 57, 65, 90],
     [97, 122, 45, 46, 95, 48, 53, 54],
     [57, 65, 90, 97, 122, 45, 46, 95],
     [48, 57, 65, 90, 97, 122, 45, 46],
     [95, 48, 57, 65, 90, 97, 122, 45],
     [46, 53, 95, 48, 52, 54, 57, 65],
     [90, 97, 122, 45, 46, 95, 48, 53],
     [54, 57, 65, 90, 97, 122, 58, 48],
     [57, 65, 70, 97, 102, 58, 48, 57],
     [65, 70, 97, 102, 58, 48, 57, 65],
     [70, 97, 102, 58, 48, 57, 65, 70],
     [97, 102, 58, 58, 48, 57, 65, 70],
     [97, 102, 58, 48, 57, 65, 70, 97],
     [102, 58, 48, 57, 65, 70, 97, 102],
     [58, 48, 57, 65, 70, 97, 102, 58],
     [58, 48, 57, 65, 70, 97, 102, 58],
     [48, 57, 65, 70, 97, 102, 58, 48],
     [57, 65, 70, 97, 102, 58, 48, 57],
     [65, 70, 97, 102, 58, 58, 48, 57],
     [65, 70, 97, 102, 58, 48, 57, 65],
     [70, 97, 102, 58, 48, 57, 65, 70],
     [97, 102, 58, 48, 57, 65, 70, 97],
     [102, 58, 58, 48, 57, 65, 70, 97],
     [102, 58, 48, 57, 65, 70, 97, 102],
     [58, 48, 57, 65, 70, 97, 102, 58],
     [48, 57, 65, 70, 97, 102, 58, 58],
     [48, 57, 65, 70, 97, 102, 58, 48],
     [57, 65, 70, 97, 102, 58, 48, 57],
     [65, 70, 97, 102, 58, 48, 57, 65],
     [70, 97, 102, 58, 48, 49, 50, 58],
     [51, 57, 65, 70, 97, 102, 46, 58],
     [48, 57, 65, 70, 97, 102, 48, 49],
     [50, 51, 57, 46, 48, 49, 50, 51],
     [57, 46, 48, 49, 50, 51, 57, 93],
     [32, 47, 58, 63, 93, 48, 57, 93],
     [48, 57, 53, 93, 48, 52, 54, 57],
     [93, 48, 53, 46, 48, 57, 46, 48],
     [57, 46, 53, 48, 52, 54, 57, 46],
     [48, 53, 46, 48, 57, 46, 48, 57],
     [46, 53, 48, 52, 54, 57, 46, 48],
     [53, 58, 48, 57, 65, 70, 97, 102],
     [58, 48, 57, 65, 70, 97, 102, 58],
     [58, 48, 57, 65, 70, 97, 102, 93],
     [48, 57, 65, 70, 97, 102, 93, 48],
     [57, 65, 70, 97, 102, 93, 48, 57],
     [65, 70, 97, 102, 46, 58, 48, 57],
     [65, 70, 97, 102, 46, 58, 48, 57],
     [65, 70, 97, 102, 46, 58, 48, 57],
     [65, 70, 97, 102, 46, 53, 58, 48],
     [52, 54, 57, 65, 70, 97, 102, 46]]"

definition smp_trans_keys_70 :: "int list list" where
  "smp_trans_keys_70 =
    [[58, 48, 53, 54, 57, 65, 70, 97],
     [102, 46, 58, 48, 57, 65, 70, 97],
     [102, 46, 58, 48, 57, 65, 70, 97],
     [102, 93, 48, 57, 65, 70, 97, 102],
     [58, 48, 57, 65, 70, 97, 102, 48],
     [49, 50, 93, 51, 57, 65, 70, 97],
     [102, 46, 58, 93, 48, 57, 65, 70],
     [97, 102, 58, 93, 48, 57, 65, 70],
     [97, 102, 58, 93, 48, 57, 65, 70],
     [97, 102, 58, 93, 48, 57, 65, 70],
     [97, 102, 46, 58, 93, 48, 57, 65],
     [70, 97, 102, 46, 58, 93, 48, 57],
     [65, 70, 97, 102, 46, 58, 93, 48],
     [57, 65, 70, 97, 102, 46, 53, 58],
     [93, 48, 52, 54, 57, 65, 70, 97],
     [102, 46, 58, 93, 48, 53, 54, 57],
     [65, 70, 97, 102, 46, 58, 93, 48],
     [57, 65, 70, 97, 102, 46, 58, 93],
     [48, 57, 65, 70, 97, 102, 58, 93],
     [48, 57, 65, 70, 97, 102, 48, 49],
     [50, 93, 51, 57, 65, 70, 97, 102],
     [46, 58, 93, 48, 57, 65, 70, 97],
     [102, 58, 93, 48, 57, 65, 70, 97],
     [102, 58, 93, 48, 57, 65, 70, 97],
     [102, 58, 93, 48, 49, 50, 51, 57],
     [65, 70, 97, 102, 46, 58, 93, 48],
     [57, 65, 70, 97, 102, 46, 58, 93],
     [48, 57, 65, 70, 97, 102, 46, 58],
     [93, 48, 57, 65, 70, 97, 102, 46],
     [53, 58, 93, 48, 52, 54, 57, 65],
     [70, 97, 102, 46, 58, 93, 48, 53],
     [54, 57, 65, 70, 97, 102, 46, 58],
     [93, 48, 57, 65, 70, 97, 102, 46],
     [58, 93, 48, 57, 65, 70, 97, 102],
     [58, 93, 48, 57, 65, 70, 97, 102],
     [48, 49, 50, 93, 51, 57, 65, 70],
     [97, 102, 46, 58, 93, 48, 57, 65],
     [70, 97, 102, 58, 93, 48, 57, 65],
     [70, 97, 102, 58, 93, 48, 57, 65],
     [70, 97, 102, 58, 93, 48, 49, 50],
     [51, 57, 65, 70, 97, 102, 46, 58],
     [93, 48, 57, 65, 70, 97, 102, 46],
     [58, 93, 48, 57, 65, 70, 97, 102],
     [46, 58, 93, 48, 57, 65, 70, 97],
     [102, 46, 53, 58, 93, 48, 52, 54],
     [57, 65, 70, 97, 102, 46, 58, 93],
     [48, 53, 54, 57, 65, 70, 97, 102],
     [46, 58, 93, 48, 57, 65, 70, 97],
     [102, 46, 58, 93, 48, 57, 65, 70],
     [97, 102, 58, 93, 48, 57, 65, 70],
     [97, 102, 48, 49, 50, 93, 51, 57],
     [65, 70, 97, 102, 46, 58, 93, 48],
     [57, 65, 70, 97, 102, 58, 93, 48],
     [57, 65, 70, 97, 102, 58, 93, 48],
     [57, 65, 70, 97, 102, 58, 93, 48],
     [49, 50, 51, 57, 65, 70, 97, 102],
     [46, 58, 93, 48, 57, 65, 70, 97],
     [102, 46, 58, 93, 48, 57, 65, 70],
     [97, 102, 46, 58, 93, 48, 57, 65],
     [70, 97, 102, 46, 53, 58, 93, 48],
     [52, 54, 57, 65, 70, 97, 102, 46],
     [58, 93, 48, 53, 54, 57, 65, 70],
     [97, 102, 46, 58, 93, 48, 57, 65],
     [70, 97, 102, 46, 58, 93, 48, 57],
     [65, 70, 97, 102, 58, 93, 48, 57],
     [65, 70, 97, 102, 48, 49, 50, 93],
     [51, 57, 65, 70, 97, 102, 46, 58],
     [93, 48, 57, 65, 70, 97, 102, 58],
     [93, 48, 57, 65, 70, 97, 102, 58],
     [93, 48, 57, 65, 70, 97, 102, 58],
     [93, 48, 49, 50, 51, 57, 65, 70],
     [97, 102, 46, 58, 93, 48, 57, 65],
     [70, 97, 102, 46, 58, 93, 48, 57],
     [65, 70, 97, 102, 46, 58, 93, 48],
     [57, 65, 70, 97, 102, 46, 53, 58],
     [93, 48, 52, 54, 57, 65, 70, 97],
     [102, 46, 58, 93, 48, 53, 54, 57],
     [65, 70, 97, 102, 46, 58, 93, 48],
     [57, 65, 70, 97, 102, 46, 58, 93],
     [48, 57, 65, 70, 97, 102, 58, 93],
     [48, 57, 65, 70, 97, 102, 58, 48],
     [49, 50, 93, 51, 57, 65, 70, 97],
     [102, 46, 58, 93, 48, 57, 65, 70],
     [97, 102, 58, 93, 48, 57, 65, 70],
     [97, 102, 58, 93, 48, 57, 65, 70],
     [97, 102, 58, 93, 48, 49, 50, 51],
     [57, 65, 70, 97, 102, 46, 58, 93],
     [48, 57, 65, 70, 97, 102, 46, 58],
     [93, 48, 57, 65, 70, 97, 102, 46],
     [58, 93, 48, 57, 65, 70, 97, 102],
     [46, 53, 58, 93, 48, 52, 54, 57],
     [65, 70, 97, 102, 46, 58, 93, 48],
     [53, 54, 57, 65, 70, 97, 102, 46],
     [58, 93, 48, 57, 65, 70, 97, 102],
     [46, 58, 93, 48, 57, 65, 70, 97],
     [102, 58, 93, 48, 57, 65, 70, 97],
     [102, 48, 57, 65, 70, 97, 102, 48],
     [57, 65, 70, 97, 102, 32, 33, 37],
     [47, 61, 63, 64, 95, 126, 36, 57],
     [58, 59, 65, 90, 97, 122, 48, 57],
     [65, 70, 97, 102, 48, 57, 65, 70],
     [97, 102, 32, 33, 37, 61, 91, 95],
     [126, 36, 59, 63, 90, 97, 122, 43],
     [58, 73, 105, 45, 46, 48, 57, 65],
     [90, 97, 122, 43, 58, 80, 112, 45],
     [46, 48, 57, 65, 90, 97, 122, 43],
     [58, 83, 115, 45, 46, 48, 57, 65],
     [90, 97, 122, 33, 37, 48, 49, 50],
     [59, 61, 63, 91, 95, 126, 35, 47],
     [51, 57, 65, 90, 97, 122, 33, 37],
     [58, 61, 64, 95, 126, 35, 59, 63],
     [90, 97, 122, 48, 57, 65, 70, 97],
     [102, 48, 57, 65, 70, 97, 102, 33],
     [37, 61, 64, 95, 126, 36, 46, 48],
     [57, 65, 90, 97, 122, 48, 57, 65],
     [70, 97, 102, 48, 57, 65, 70, 97],
     [102, 48, 49, 50, 91, 51, 57, 65],
     [90, 97, 122, 45, 46, 95, 48, 57],
     [65, 90, 97, 122, 45, 95, 48, 57],
     [65, 90, 97, 122, 45, 46, 95, 48],
     [57, 65, 90, 97, 122, 48, 57, 65],
     [90, 97, 122, 32, 45, 46, 58, 59],
     [63, 95, 48, 57, 65, 90, 97, 122],
     [45, 95, 48, 57, 65, 90, 97, 122],
     [32, 58, 59, 63, 48, 57, 65, 90],
     [97, 122, 48, 54, 49, 53, 55, 57],
     [48, 49, 57, 48, 49, 57, 49, 57],
     [32, 59, 63, 33, 37, 76, 79, 84],
     [93, 95, 108, 111, 116, 126, 36, 43],
     [45, 58, 65, 91, 97, 122, 32, 33],
     [37, 59, 61, 63, 93, 95, 126, 36],
     [43, 45, 58, 65, 91, 97, 122, 48],
     [57, 65, 70, 97, 102, 48, 57, 65],
     [70, 97, 102, 32, 33, 37, 59, 61],
     [63, 93, 95, 126, 36, 43, 45, 58],
     [65, 91, 97, 122, 32, 33, 37, 59],
     [63, 93, 95, 126, 36, 43, 45, 58],
     [65, 91, 97, 122, 48, 57, 65, 70],
     [97, 102, 48, 57, 65, 70, 97, 102],
     [33, 36, 37, 63, 93, 95, 126, 39],
     [43, 45, 58, 65, 91, 97, 122, 33],
     [36, 37, 61, 63, 93, 95, 126, 39],
     [43, 45, 58, 65, 91, 97, 122, 48],
     [57, 65, 70, 97, 102, 48, 57, 65],
     [70, 97, 102, 32, 33, 37, 38, 63],
     [93, 95, 126, 36, 43, 45, 58, 65],
     [91, 97, 122, 48, 57, 65, 70, 97],
     [102, 48, 57, 65, 70, 97, 102, 33],
     [37, 93, 95, 126, 36, 43, 45, 58],
     [65, 91, 97, 122, 32, 33, 37, 59]]"

definition smp_trans_keys_71 :: "int list list" where
  "smp_trans_keys_71 =
    [[61, 63, 82, 93, 95, 114, 126, 36],
     [43, 45, 58, 65, 91, 97, 122, 32],
     [33, 37, 59, 61, 63, 93, 95, 126],
     [36, 43, 45, 58, 65, 91, 97, 122],
     [32, 33, 37, 39, 47, 58, 59, 61],
     [63, 91, 93, 96, 126, 36, 41, 42],
     [43, 45, 57, 65, 90, 95, 122, 32],
     [33, 37, 39, 47, 58, 59, 63, 91],
     [93, 96, 126, 36, 41, 42, 43, 45],
     [57, 65, 90, 95, 122, 32, 33, 37],
     [39, 59, 63, 126, 42, 43, 45, 46],
     [48, 57, 65, 70, 71, 90, 95, 96],
     [97, 102, 103, 122, 32, 33, 37, 39],
     [59, 63, 126, 42, 43, 45, 46, 48],
     [57, 65, 90, 95, 122, 32, 33, 37],
     [39, 59, 63, 126, 42, 43, 45, 46],
     [48, 57, 65, 70, 71, 90, 95, 96],
     [97, 102, 103, 122, 32, 33, 37, 59],
     [61, 63, 66, 86, 93, 95, 98, 118],
     [126, 36, 43, 45, 58, 65, 91, 97],
     [122, 32, 33, 37, 59, 61, 63, 93],
     [95, 126, 36, 43, 45, 58, 65, 91],
     [97, 122, 32, 33, 37, 59, 61, 63],
     [73, 93, 95, 105, 126, 36, 43, 45],
     [58, 65, 91, 97, 122, 32, 33, 37],
     [59, 61, 63, 68, 93, 95, 100, 126],
     [36, 43, 45, 58, 65, 91, 97, 122],
     [32, 33, 37, 59, 61, 63, 93, 95],
     [126, 36, 43, 45, 58, 65, 91, 97],
     [122, 32, 33, 37, 39, 47, 58, 59],
     [61, 63, 91, 93, 96, 126, 36, 41],
     [42, 43, 45, 57, 65, 90, 95, 122],
     [32, 33, 37, 39, 47, 58, 59, 63],
     [91, 93, 96, 126, 36, 41, 42, 43],
     [45, 57, 65, 90, 95, 122, 32, 33],
     [37, 39, 59, 63, 126, 42, 43, 45],
     [46, 48, 57, 65, 70, 71, 90, 95],
     [96, 97, 102, 103, 122, 32, 33, 37],
     [39, 59, 63, 126, 42, 43, 45, 46],
     [48, 57, 65, 90, 95, 122, 32, 33],
     [37, 39, 59, 63, 126, 42, 43, 45],
     [46, 48, 57, 65, 70, 71, 90, 95],
     [96, 97, 102, 103, 122, 32, 33, 37],
     [59, 61, 63, 82, 93, 95, 114, 126],
     [36, 43, 45, 58, 65, 91, 97, 122],
     [32, 33, 37, 59, 61, 63, 65, 93],
     [95, 97, 126, 36, 43, 45, 58, 66],
     [91, 98, 122, 32, 33, 37, 59, 61],
     [63, 78, 93, 95, 110, 126, 36, 43],
     [45, 58, 65, 91, 97, 122, 32, 33],
     [37, 59, 61, 63, 83, 93, 95, 115],
     [126, 36, 43, 45, 58, 65, 91, 97],
     [122, 32, 33, 37, 59, 61, 63, 80],
     [93, 95, 112, 126, 36, 43, 45, 58],
     [65, 91, 97, 122, 32, 33, 37, 59],
     [61, 63, 79, 93, 95, 111, 126, 36],
     [43, 45, 58, 65, 91, 97, 122, 32],
     [33, 37, 59, 61, 63, 82, 93, 95],
     [114, 126, 36, 43, 45, 58, 65, 91],
     [97, 122, 32, 33, 37, 59, 61, 63],
     [84, 93, 95, 116, 126, 36, 43, 45],
     [58, 65, 91, 97, 122, 32, 33, 37],
     [59, 61, 63, 93, 95, 126, 36, 43],
     [45, 58, 65, 91, 97, 122, 32, 33],
     [37, 39, 47, 58, 59, 61, 63, 83],
     [84, 85, 87, 91, 93, 96, 115, 116],
     [117, 119, 126, 36, 41, 42, 43, 45],
     [57, 65, 90, 95, 122, 32, 33, 37],
     [39, 47, 58, 59, 63, 91, 93, 96],
     [126, 36, 41, 42, 43, 45, 57, 65],
     [90, 95, 122, 32, 33, 37, 39, 59],
     [63, 126, 42, 43, 45, 46, 48, 57],
     [65, 70, 71, 90, 95, 96, 97, 102],
     [103, 122, 32, 33, 37, 39, 59, 63],
     [126, 42, 43, 45, 46, 48, 57, 65],
     [90, 95, 122, 32, 33, 37, 39, 59],
     [63, 126, 42, 43, 45, 46, 48, 57],
     [65, 70, 71, 90, 95, 96, 97, 102],
     [103, 122, 32, 33, 37, 39, 47, 58],
     [59, 63, 67, 91, 93, 96, 99, 126],
     [36, 41, 42, 43, 45, 57, 65, 90],
     [95, 122, 32, 33, 37, 39, 47, 58],
     [59, 63, 84, 91, 93, 96, 116, 126],
     [36, 41, 42, 43, 45, 57, 65, 90],
     [95, 122, 32, 33, 37, 39, 47, 58],
     [59, 63, 80, 91, 93, 96, 112, 126],
     [36, 41, 42, 43, 45, 57, 65, 90],
     [95, 122, 32, 33, 37, 39, 47, 58],
     [59, 63, 91, 93, 96, 126, 36, 41],
     [42, 43, 45, 57, 65, 90, 95, 122],
     [32, 33, 37, 39, 47, 58, 59, 63],
     [67, 76, 91, 93, 96, 99, 108, 126],
     [36, 41, 42, 43, 45, 57, 65, 90],
     [95, 122, 32, 33, 37, 39, 47, 58],
     [59, 63, 80, 91, 93, 96, 112, 126],
     [36, 41, 42, 43, 45, 57, 65, 90],
     [95, 122, 32, 33, 37, 39, 47, 58],
     [59, 63, 91, 93, 96, 126, 36, 41],
     [42, 43, 45, 57, 65, 90, 95, 122],
     [32, 33, 37, 39, 47, 58, 59, 63],
     [83, 91, 93, 96, 115, 126, 36, 41],
     [42, 43, 45, 57, 65, 90, 95, 122],
     [32, 33, 37, 39, 47, 58, 59, 63],
     [91, 93, 96, 126, 36, 41, 42, 43],
     [45, 57, 65, 90, 95, 122, 32, 33],
     [37, 39, 47, 58, 59, 63, 68, 91],
     [93, 96, 100, 126, 36, 41, 42, 43],
     [45, 57, 65, 90, 95, 122, 32, 33],
     [37, 39, 47, 58, 59, 63, 80, 91],
     [93, 96, 112, 126, 36, 41, 42, 43],
     [45, 57, 65, 90, 95, 122, 32, 33],
     [37, 39, 47, 58, 59, 63, 91, 93],
     [96, 126, 36, 41, 42, 43, 45, 57],
     [65, 90, 95, 122, 32, 33, 37, 39],
     [47, 58, 59, 63, 83, 91, 93, 96],
     [115, 126, 36, 41, 42, 43, 45, 57],
     [65, 90, 95, 122, 32, 33, 37, 39],
     [47, 58, 59, 63, 83, 91, 93, 96],
     [115, 126, 36, 41, 42, 43, 45, 57],
     [65, 90, 95, 122, 32, 33, 37, 39],
     [47, 58, 59, 63, 91, 93, 96, 126],
     [36, 41, 42, 43, 45, 57, 65, 90],
     [95, 122, 32, 59, 63, 48, 57, 32],
     [59, 63, 48, 57, 32, 59, 63, 48],
     [57, 32, 59, 63, 48, 57, 32, 53],
     [59, 63, 48, 52, 54, 57, 32, 53],
     [59, 63, 48, 52, 54, 57, 32, 51],
     [59, 63, 48, 50, 52, 57, 32, 59],
     [63, 48, 53, 48, 49, 50, 51, 57],
     [65, 90, 97, 122, 45, 46, 95, 48],
     [57, 65, 90, 97, 122, 48, 49, 50],
     [51, 57, 65, 90, 97, 122, 45, 46],
     [95, 48, 57, 65, 90, 97, 122, 48],
     [49, 50, 51, 57, 65, 90, 97, 122],
     [32, 45, 46, 58, 59, 63, 95, 48],
     [57, 65, 90, 97, 122, 32, 45, 46],
     [58, 59, 63, 95, 48, 57, 65, 90],
     [97, 122, 32, 45, 46, 58, 59, 63],
     [95, 48, 57, 65, 90, 97, 122, 32],
     [45, 46, 53, 58, 59, 63, 95, 48],
     [52, 54, 57, 65, 90, 97, 122, 32],
     [45, 46, 58, 59, 63, 95, 48, 53],
     [54, 57, 65, 90, 97, 122, 45, 46],
     [95, 48, 57, 65, 90, 97, 122, 45],
     [46, 95, 48, 57, 65, 90, 97, 122],
     [45, 46, 53, 95, 48, 52, 54, 57],
     [65, 90, 97, 122, 45, 46, 95, 48],
     [53, 54, 57, 65, 90, 97, 122, 45],
     [46, 95, 48, 57, 65, 90, 97, 122],
     [45, 46, 95, 48, 57, 65, 90, 97]]"

definition smp_trans_keys_72 :: "int list list" where
  "smp_trans_keys_72 =
    [[122, 45, 46, 53, 95, 48, 52, 54],
     [57, 65, 90, 97, 122, 45, 46, 95],
     [48, 53, 54, 57, 65, 90, 97, 122],
     [45, 46, 95, 48, 57, 65, 90, 97],
     [122, 45, 46, 95, 48, 57, 65, 90],
     [97, 122, 45, 46, 53, 95, 48, 52],
     [54, 57, 65, 90, 97, 122, 45, 46],
     [95, 48, 53, 54, 57, 65, 90, 97],
     [122, 58, 48, 57, 65, 70, 97, 102],
     [58, 48, 57, 65, 70, 97, 102, 58],
     [48, 57, 65, 70, 97, 102, 58, 48],
     [57, 65, 70, 97, 102, 58, 58, 48],
     [57, 65, 70, 97, 102, 58, 48, 57],
     [65, 70, 97, 102, 58, 48, 57, 65],
     [70, 97, 102, 58, 48, 57, 65, 70],
     [97, 102, 58, 58, 48, 57, 65, 70],
     [97, 102, 58, 48, 57, 65, 70, 97],
     [102, 58, 48, 57, 65, 70, 97, 102],
     [58, 48, 57, 65, 70, 97, 102, 58],
     [58, 48, 57, 65, 70, 97, 102, 58],
     [48, 57, 65, 70, 97, 102, 58, 48],
     [57, 65, 70, 97, 102, 58, 48, 57],
     [65, 70, 97, 102, 58, 58, 48, 57],
     [65, 70, 97, 102, 58, 48, 57, 65],
     [70, 97, 102, 58, 48, 57, 65, 70],
     [97, 102, 58, 48, 57, 65, 70, 97],
     [102, 58, 58, 48, 57, 65, 70, 97],
     [102, 58, 48, 57, 65, 70, 97, 102],
     [58, 48, 57, 65, 70, 97, 102, 58],
     [48, 57, 65, 70, 97, 102, 58, 48],
     [49, 50, 58, 51, 57, 65, 70, 97],
     [102, 46, 58, 48, 57, 65, 70, 97],
     [102, 48, 49, 50, 51, 57, 46, 48],
     [49, 50, 51, 57, 46, 48, 49, 50],
     [51, 57, 93, 32, 58, 59, 63, 93],
     [48, 57, 93, 48, 57, 53, 93, 48],
     [52, 54, 57, 93, 48, 53, 46, 48],
     [57, 46, 48, 57, 46, 53, 48, 52],
     [54, 57, 46, 48, 53, 46, 48, 57],
     [46, 48, 57, 46, 53, 48, 52, 54],
     [57, 46, 48, 53, 58, 48, 57, 65],
     [70, 97, 102, 58, 48, 57, 65, 70],
     [97, 102, 58, 58, 48, 57, 65, 70],
     [97, 102, 93, 48, 57, 65, 70, 97],
     [102, 93, 48, 57, 65, 70, 97, 102],
     [93, 48, 57, 65, 70, 97, 102, 46],
     [58, 48, 57, 65, 70, 97, 102, 46],
     [58, 48, 57, 65, 70, 97, 102, 46],
     [58, 48, 57, 65, 70, 97, 102, 46],
     [53, 58, 48, 52, 54, 57, 65, 70],
     [97, 102, 46, 58, 48, 53, 54, 57],
     [65, 70, 97, 102, 46, 58, 48, 57],
     [65, 70, 97, 102, 46, 58, 48, 57],
     [65, 70, 97, 102, 93, 48, 57, 65],
     [70, 97, 102, 58, 48, 57, 65, 70],
     [97, 102, 48, 49, 50, 93, 51, 57],
     [65, 70, 97, 102, 46, 58, 93, 48],
     [57, 65, 70, 97, 102, 58, 93, 48],
     [57, 65, 70, 97, 102, 58, 93, 48],
     [57, 65, 70, 97, 102, 58, 93, 48],
     [57, 65, 70, 97, 102, 46, 58, 93],
     [48, 57, 65, 70, 97, 102, 46, 58],
     [93, 48, 57, 65, 70, 97, 102, 46],
     [58, 93, 48, 57, 65, 70, 97, 102],
     [46, 53, 58, 93, 48, 52, 54, 57],
     [65, 70, 97, 102, 46, 58, 93, 48],
     [53, 54, 57, 65, 70, 97, 102, 46],
     [58, 93, 48, 57, 65, 70, 97, 102],
     [46, 58, 93, 48, 57, 65, 70, 97],
     [102, 58, 93, 48, 57, 65, 70, 97],
     [102, 48, 49, 50, 93, 51, 57, 65],
     [70, 97, 102, 46, 58, 93, 48, 57],
     [65, 70, 97, 102, 58, 93, 48, 57],
     [65, 70, 97, 102, 58, 93, 48, 57],
     [65, 70, 97, 102, 58, 93, 48, 49],
     [50, 51, 57, 65, 70, 97, 102, 46],
     [58, 93, 48, 57, 65, 70, 97, 102],
     [46, 58, 93, 48, 57, 65, 70, 97],
     [102, 46, 58, 93, 48, 57, 65, 70],
     [97, 102, 46, 53, 58, 93, 48, 52],
     [54, 57, 65, 70, 97, 102, 46, 58],
     [93, 48, 53, 54, 57, 65, 70, 97],
     [102, 46, 58, 93, 48, 57, 65, 70],
     [97, 102, 46, 58, 93, 48, 57, 65],
     [70, 97, 102, 58, 93, 48, 57, 65],
     [70, 97, 102, 48, 49, 50, 93, 51],
     [57, 65, 70, 97, 102, 46, 58, 93],
     [48, 57, 65, 70, 97, 102, 58, 93],
     [48, 57, 65, 70, 97, 102, 58, 93],
     [48, 57, 65, 70, 97, 102, 58, 93],
     [48, 49, 50, 51, 57, 65, 70, 97],
     [102, 46, 58, 93, 48, 57, 65, 70],
     [97, 102, 46, 58, 93, 48, 57, 65],
     [70, 97, 102, 46, 58, 93, 48, 57],
     [65, 70, 97, 102, 46, 53, 58, 93],
     [48, 52, 54, 57, 65, 70, 97, 102],
     [46, 58, 93, 48, 53, 54, 57, 65],
     [70, 97, 102, 46, 58, 93, 48, 57],
     [65, 70, 97, 102, 46, 58, 93, 48],
     [57, 65, 70, 97, 102, 58, 93, 48],
     [57, 65, 70, 97, 102, 48, 49, 50],
     [93, 51, 57, 65, 70, 97, 102, 46],
     [58, 93, 48, 57, 65, 70, 97, 102],
     [58, 93, 48, 57, 65, 70, 97, 102],
     [58, 93, 48, 57, 65, 70, 97, 102],
     [58, 93, 48, 49, 50, 51, 57, 65],
     [70, 97, 102, 46, 58, 93, 48, 57],
     [65, 70, 97, 102, 46, 58, 93, 48],
     [57, 65, 70, 97, 102, 46, 58, 93],
     [48, 57, 65, 70, 97, 102, 46, 53],
     [58, 93, 48, 52, 54, 57, 65, 70],
     [97, 102, 46, 58, 93, 48, 53, 54],
     [57, 65, 70, 97, 102, 46, 58, 93],
     [48, 57, 65, 70, 97, 102, 46, 58],
     [93, 48, 57, 65, 70, 97, 102, 58],
     [93, 48, 57, 65, 70, 97, 102, 48],
     [49, 50, 93, 51, 57, 65, 70, 97],
     [102, 46, 58, 93, 48, 57, 65, 70],
     [97, 102, 58, 93, 48, 57, 65, 70],
     [97, 102, 58, 93, 48, 57, 65, 70],
     [97, 102, 58, 93, 48, 49, 50, 51],
     [57, 65, 70, 97, 102, 46, 58, 93],
     [48, 57, 65, 70, 97, 102, 46, 58],
     [93, 48, 57, 65, 70, 97, 102, 46],
     [58, 93, 48, 57, 65, 70, 97, 102],
     [46, 53, 58, 93, 48, 52, 54, 57],
     [65, 70, 97, 102, 46, 58, 93, 48],
     [53, 54, 57, 65, 70, 97, 102, 46],
     [58, 93, 48, 57, 65, 70, 97, 102],
     [46, 58, 93, 48, 57, 65, 70, 97],
     [102, 58, 93, 48, 57, 65, 70, 97],
     [102, 58, 48, 49, 50, 93, 51, 57],
     [65, 70, 97, 102, 46, 58, 93, 48],
     [57, 65, 70, 97, 102, 58, 93, 48],
     [57, 65, 70, 97, 102, 58, 93, 48],
     [57, 65, 70, 97, 102, 58, 93, 48],
     [49, 50, 51, 57, 65, 70, 97, 102],
     [46, 58, 93, 48, 57, 65, 70, 97],
     [102, 46, 58, 93, 48, 57, 65, 70],
     [97, 102, 46, 58, 93, 48, 57, 65],
     [70, 97, 102, 46, 53, 58, 93, 48],
     [52, 54, 57, 65, 70, 97, 102, 46],
     [58, 93, 48, 53, 54, 57, 65, 70],
     [97, 102, 46, 58, 93, 48, 57, 65],
     [70, 97, 102, 46, 58, 93, 48, 57],
     [65, 70, 97, 102, 58, 93, 48, 57],
     [65, 70, 97, 102, 33, 37, 45, 46],
     [58, 59, 61, 63, 64, 95, 126, 35],
     [47, 48, 57, 65, 90, 97, 122, 33],
     [37, 45, 58, 59, 61, 63, 64, 95]]"

definition smp_trans_keys_73 :: "int list list" where
  "smp_trans_keys_73 =
    [[126, 35, 47, 48, 57, 65, 90, 97],
     [122, 33, 37, 45, 46, 58, 59, 61],
     [63, 64, 95, 126, 35, 47, 48, 57],
     [65, 90, 97, 122, 33, 37, 58, 59],
     [61, 63, 64, 95, 126, 35, 47, 48],
     [57, 65, 90, 97, 122, 32, 33, 37],
     [45, 46, 58, 59, 61, 63, 64, 95],
     [126, 35, 47, 48, 57, 65, 90, 97],
     [122, 33, 37, 45, 58, 59, 61, 63],
     [64, 95, 126, 35, 47, 48, 57, 65],
     [90, 97, 122, 32, 33, 37, 58, 59],
     [61, 63, 64, 95, 126, 35, 47, 48],
     [57, 65, 90, 97, 122, 33, 37, 48],
     [54, 61, 64, 95, 126, 36, 46, 49],
     [53, 55, 57, 65, 90, 97, 122, 33],
     [37, 48, 61, 64, 95, 126, 36, 46],
     [49, 57, 65, 90, 97, 122, 33, 37],
     [48, 61, 64, 95, 126, 36, 46, 49],
     [57, 65, 90, 97, 122, 33, 37, 48],
     [61, 64, 95, 126, 36, 46, 49, 57],
     [65, 90, 97, 122, 32, 33, 37, 59],
     [61, 63, 64, 95, 126, 36, 46, 48],
     [57, 65, 90, 97, 122, 32, 33, 37],
     [59, 61, 63, 64, 95, 126, 36, 46],
     [48, 57, 65, 90, 97, 122, 32, 33],
     [37, 59, 61, 63, 64, 95, 126, 36],
     [46, 48, 57, 65, 90, 97, 122, 32],
     [33, 37, 59, 61, 63, 64, 95, 126],
     [36, 46, 48, 57, 65, 90, 97, 122],
     [32, 33, 37, 59, 61, 63, 64, 95],
     [126, 36, 46, 48, 57, 65, 90, 97],
     [122, 32, 33, 37, 53, 59, 61, 63],
     [64, 95, 126, 36, 46, 48, 52, 54],
     [57, 65, 90, 97, 122, 32, 33, 37],
     [53, 59, 61, 63, 64, 95, 126, 36],
     [46, 48, 52, 54, 57, 65, 90, 97],
     [122, 32, 33, 37, 51, 59, 61, 63],
     [64, 95, 126, 36, 46, 48, 50, 52],
     [57, 65, 90, 97, 122, 32, 33, 37],
     [59, 61, 63, 64, 95, 126, 36, 46],
     [48, 53, 54, 57, 65, 90, 97, 122],
     [33, 35, 37, 44, 58, 59, 61, 63],
     [64, 76, 79, 84, 91, 93, 95, 108],
     [111, 116, 126, 36, 57, 65, 90, 97],
     [122, 32, 33, 35, 37, 44, 58, 59],
     [61, 63, 64, 91, 93, 95, 126, 36],
     [57, 65, 90, 97, 122, 48, 57, 65],
     [70, 97, 102, 48, 57, 65, 70, 97],
     [102, 32, 33, 37, 44, 47, 58, 59],
     [61, 63, 64, 91, 93, 95, 126, 36],
     [57, 65, 90, 97, 122, 48, 57, 65],
     [70, 97, 102, 48, 57, 65, 70, 97],
     [102, 32, 33, 37, 44, 47, 58, 59],
     [61, 63, 64, 91, 93, 95, 126, 36],
     [57, 65, 90, 97, 122, 32, 33, 37],
     [44, 47, 58, 59, 61, 63, 64, 91],
     [93, 95, 126, 36, 57, 65, 90, 97],
     [122, 48, 57, 65, 70, 97, 102, 48],
     [57, 65, 70, 97, 102, 33, 37, 44],
     [47, 58, 61, 64, 91, 93, 95, 126],
     [36, 57, 65, 90, 97, 122, 32, 33],
     [35, 37, 44, 58, 59, 61, 63, 64],
     [91, 93, 95, 126, 36, 57, 65, 90],
     [97, 122, 32, 33, 35, 37, 44, 58],
     [59, 61, 63, 64, 91, 93, 95, 126],
     [36, 57, 65, 90, 97, 122, 48, 57],
     [65, 70, 97, 102, 48, 57, 65, 70],
     [97, 102, 33, 36, 37, 44, 58, 59],
     [61, 64, 91, 93, 95, 126, 35, 38],
     [39, 57, 63, 90, 97, 122, 33, 36],
     [37, 44, 58, 59, 61, 64, 91, 93],
     [95, 126, 35, 38, 39, 57, 63, 90],
     [97, 122, 48, 57, 65, 70, 97, 102],
     [48, 57, 65, 70, 97, 102, 33, 37],
     [38, 44, 47, 58, 61, 63, 64, 91],
     [93, 95, 126, 36, 57, 65, 90, 97],
     [122, 48, 57, 65, 70, 97, 102, 48],
     [57, 65, 70, 97, 102, 32, 33, 37],
     [38, 44, 47, 58, 61, 63, 64, 91],
     [93, 95, 126, 36, 57, 65, 90, 97],
     [122, 48, 57, 65, 70, 97, 102, 48],
     [57, 65, 70, 97, 102, 33, 37, 38],
     [44, 47, 58, 61, 63, 64, 91, 93],
     [95, 126, 36, 57, 65, 90, 97, 122],
     [32, 33, 35, 37, 38, 44, 58, 59],
     [61, 64, 91, 93, 95, 126, 36, 57],
     [63, 90, 97, 122, 48, 57, 65, 70],
     [97, 102, 48, 57, 65, 70, 97, 102],
     [33, 35, 37, 44, 58, 59, 61, 63],
     [64, 91, 93, 95, 126, 36, 57, 65],
     [90, 97, 122, 32, 33, 35, 37, 44],
     [58, 59, 61, 63, 64, 82, 91, 93],
     [95, 114, 126, 36, 57, 65, 90, 97],
     [122, 32, 33, 35, 37, 44, 58, 59],
     [61, 63, 64, 91, 93, 95, 126, 36],
     [57, 65, 90, 97, 122, 32, 33, 35],
     [37, 39, 44, 47, 58, 59, 61, 63],
     [64, 91, 93, 96, 126, 36, 41, 42],
     [57, 65, 90, 95, 122, 32, 33, 35],
     [37, 39, 44, 47, 58, 59, 61, 63],
     [64, 91, 93, 96, 126, 36, 41, 42],
     [57, 65, 90, 95, 122, 32, 33, 37],
     [39, 59, 63, 126, 42, 43, 45, 46],
     [48, 57, 65, 70, 71, 90, 95, 96],
     [97, 102, 103, 122, 32, 33, 37, 39],
     [59, 63, 126, 42, 43, 45, 46, 48],
     [57, 65, 70, 71, 90, 95, 96, 97],
     [102, 103, 122, 32, 33, 35, 37, 44],
     [58, 59, 61, 63, 64, 66, 86, 91],
     [93, 95, 98, 118, 126, 36, 57, 65],
     [90, 97, 122, 32, 33, 35, 37, 44],
     [58, 59, 61, 63, 64, 91, 93, 95],
     [126, 36, 57, 65, 90, 97, 122, 32],
     [33, 35, 37, 44, 58, 59, 61, 63],
     [64, 73, 91, 93, 95, 105, 126, 36],
     [57, 65, 90, 97, 122, 32, 33, 35],
     [37, 44, 58, 59, 61, 63, 64, 68],
     [91, 93, 95, 100, 126, 36, 57, 65],
     [90, 97, 122, 32, 33, 35, 37, 44],
     [58, 59, 61, 63, 64, 91, 93, 95],
     [126, 36, 57, 65, 90, 97, 122, 32],
     [33, 35, 37, 39, 44, 47, 58, 59],
     [61, 63, 64, 91, 93, 96, 126, 36],
     [41, 42, 57, 65, 90, 95, 122, 32],
     [33, 35, 37, 39, 44, 47, 58, 59],
     [61, 63, 64, 91, 93, 96, 126, 36],
     [41, 42, 57, 65, 90, 95, 122, 32],
     [33, 37, 39, 59, 63, 126, 42, 43],
     [45, 46, 48, 57, 65, 70, 71, 90],
     [95, 96, 97, 102, 103, 122, 32, 33],
     [37, 39, 59, 63, 126, 42, 43, 45],
     [46, 48, 57, 65, 70, 71, 90, 95],
     [96, 97, 102, 103, 122, 32, 33, 35],
     [37, 44, 58, 59, 61, 63, 64, 82],
     [91, 93, 95, 114, 126, 36, 57, 65],
     [90, 97, 122, 32, 33, 35, 37, 44],
     [58, 59, 61, 63, 64, 65, 91, 93],
     [95, 97, 126, 36, 57, 66, 90, 98],
     [122, 32, 33, 35, 37, 44, 58, 59],
     [61, 63, 64, 78, 91, 93, 95, 110],
     [126, 36, 57, 65, 90, 97, 122, 32],
     [33, 35, 37, 44, 58, 59, 61, 63],
     [64, 83, 91, 93, 95, 115, 126, 36],
     [57, 65, 90, 97, 122, 32, 33, 35],
     [37, 44, 58, 59, 61, 63, 64, 80],
     [91, 93, 95, 112, 126, 36, 57, 65],
     [90, 97, 122, 32, 33, 35, 37, 44],
     [58, 59, 61, 63, 64, 79, 91, 93],
     [95, 111, 126, 36, 57, 65, 90, 97],
     [122, 32, 33, 35, 37, 44, 58, 59]]"

definition smp_trans_keys_74 :: "int list list" where
  "smp_trans_keys_74 =
    [[61, 63, 64, 82, 91, 93, 95, 114],
     [126, 36, 57, 65, 90, 97, 122, 32],
     [33, 35, 37, 44, 58, 59, 61, 63],
     [64, 84, 91, 93, 95, 116, 126, 36],
     [57, 65, 90, 97, 122, 32, 33, 35],
     [37, 44, 58, 59, 61, 63, 64, 91],
     [93, 95, 126, 36, 57, 65, 90, 97],
     [122, 32, 33, 35, 37, 39, 44, 47],
     [58, 59, 61, 63, 64, 83, 84, 85],
     [87, 91, 93, 96, 115, 116, 117, 119],
     [126, 36, 41, 42, 57, 65, 90, 95],
     [122, 32, 33, 35, 37, 39, 44, 47],
     [58, 59, 61, 63, 64, 91, 93, 96],
     [126, 36, 41, 42, 57, 65, 90, 95],
     [122, 32, 33, 37, 39, 59, 63, 126],
     [42, 43, 45, 46, 48, 57, 65, 70],
     [71, 90, 95, 96, 97, 102, 103, 122],
     [32, 33, 37, 39, 59, 63, 126, 42],
     [43, 45, 46, 48, 57, 65, 70, 71],
     [90, 95, 96, 97, 102, 103, 122, 32],
     [33, 35, 37, 39, 44, 47, 58, 59],
     [61, 63, 64, 67, 91, 93, 96, 99],
     [126, 36, 41, 42, 57, 65, 90, 95],
     [122, 32, 33, 35, 37, 39, 44, 47],
     [58, 59, 61, 63, 64, 84, 91, 93],
     [96, 116, 126, 36, 41, 42, 57, 65],
     [90, 95, 122, 32, 33, 35, 37, 39],
     [44, 47, 58, 59, 61, 63, 64, 80],
     [91, 93, 96, 112, 126, 36, 41, 42],
     [57, 65, 90, 95, 122, 32, 33, 35],
     [37, 39, 44, 47, 58, 59, 61, 63],
     [64, 91, 93, 96, 126, 36, 41, 42],
     [57, 65, 90, 95, 122, 32, 33, 35],
     [37, 39, 44, 47, 58, 59, 61, 63],
     [64, 67, 76, 91, 93, 96, 99, 108],
     [126, 36, 41, 42, 57, 65, 90, 95],
     [122, 32, 33, 35, 37, 39, 44, 47],
     [58, 59, 61, 63, 64, 80, 91, 93],
     [96, 112, 126, 36, 41, 42, 57, 65],
     [90, 95, 122, 32, 33, 35, 37, 39],
     [44, 47, 58, 59, 61, 63, 64, 91],
     [93, 96, 126, 36, 41, 42, 57, 65],
     [90, 95, 122, 32, 33, 35, 37, 39],
     [44, 47, 58, 59, 61, 63, 64, 83],
     [91, 93, 96, 115, 126, 36, 41, 42],
     [57, 65, 90, 95, 122, 32, 33, 35],
     [37, 39, 44, 47, 58, 59, 61, 63],
     [64, 91, 93, 96, 126, 36, 41, 42],
     [57, 65, 90, 95, 122, 32, 33, 35],
     [37, 39, 44, 47, 58, 59, 61, 63],
     [64, 68, 91, 93, 96, 100, 126, 36],
     [41, 42, 57, 65, 90, 95, 122, 32],
     [33, 35, 37, 39, 44, 47, 58, 59],
     [61, 63, 64, 80, 91, 93, 96, 112],
     [126, 36, 41, 42, 57, 65, 90, 95],
     [122, 32, 33, 35, 37, 39, 44, 47],
     [58, 59, 61, 63, 64, 91, 93, 96],
     [126, 36, 41, 42, 57, 65, 90, 95],
     [122, 32, 33, 35, 37, 39, 44, 47],
     [58, 59, 61, 63, 64, 83, 91, 93],
     [96, 115, 126, 36, 41, 42, 57, 65],
     [90, 95, 122, 32, 33, 35, 37, 39],
     [44, 47, 58, 59, 61, 63, 64, 83],
     [91, 93, 96, 115, 126, 36, 41, 42],
     [57, 65, 90, 95, 122, 32, 33, 35],
     [37, 39, 44, 47, 58, 59, 61, 63],
     [64, 91, 93, 96, 126, 36, 41, 42],
     [57, 65, 90, 95, 122, 33, 37, 48],
     [49, 50, 58, 59, 61, 63, 64, 95],
     [126, 35, 47, 51, 57, 65, 90, 97],
     [122, 33, 37, 45, 46, 58, 59, 61],
     [63, 64, 95, 126, 35, 47, 48, 57],
     [65, 90, 97, 122, 33, 37, 48, 49],
     [50, 58, 59, 61, 63, 64, 95, 126],
     [35, 47, 51, 57, 65, 90, 97, 122],
     [33, 37, 45, 46, 58, 59, 61, 63],
     [64, 95, 126, 35, 47, 48, 57, 65],
     [90, 97, 122, 33, 37, 48, 49, 50],
     [58, 59, 61, 63, 64, 95, 126, 35],
     [47, 51, 57, 65, 90, 97, 122, 32],
     [33, 37, 45, 46, 58, 59, 61, 63],
     [64, 95, 126, 35, 47, 48, 57, 65],
     [90, 97, 122, 32, 33, 37, 45, 46],
     [58, 59, 61, 63, 64, 95, 126, 35],
     [47, 48, 57, 65, 90, 97, 122, 32],
     [33, 37, 45, 46, 58, 59, 61, 63],
     [64, 95, 126, 35, 47, 48, 57, 65],
     [90, 97, 122, 32, 33, 37, 45, 46],
     [53, 58, 59, 61, 63, 64, 95, 126],
     [35, 47, 48, 52, 54, 57, 65, 90],
     [97, 122, 32, 33, 37, 45, 46, 58],
     [59, 61, 63, 64, 95, 126, 35, 47],
     [48, 53, 54, 57, 65, 90, 97, 122],
     [33, 37, 45, 46, 58, 59, 61, 63],
     [64, 95, 126, 35, 47, 48, 57, 65],
     [90, 97, 122, 33, 37, 45, 46, 58],
     [59, 61, 63, 64, 95, 126, 35, 47],
     [48, 57, 65, 90, 97, 122, 33, 37],
     [45, 46, 53, 58, 59, 61, 63, 64],
     [95, 126, 35, 47, 48, 52, 54, 57],
     [65, 90, 97, 122, 33, 37, 45, 46],
     [58, 59, 61, 63, 64, 95, 126, 35],
     [47, 48, 53, 54, 57, 65, 90, 97],
     [122, 33, 37, 45, 46, 58, 59, 61],
     [63, 64, 95, 126, 35, 47, 48, 57],
     [65, 90, 97, 122, 33, 37, 45, 46],
     [58, 59, 61, 63, 64, 95, 126, 35],
     [47, 48, 57, 65, 90, 97, 122, 33],
     [37, 45, 46, 53, 58, 59, 61, 63],
     [64, 95, 126, 35, 47, 48, 52, 54],
     [57, 65, 90, 97, 122, 33, 37, 45],
     [46, 58, 59, 61, 63, 64, 95, 126],
     [35, 47, 48, 53, 54, 57, 65, 90],
     [97, 122, 33, 37, 45, 46, 58, 59],
     [61, 63, 64, 95, 126, 35, 47, 48],
     [57, 65, 90, 97, 122, 33, 37, 45],
     [46, 58, 59, 61, 63, 64, 95, 126],
     [35, 47, 48, 57, 65, 90, 97, 122],
     [33, 37, 45, 46, 53, 58, 59, 61],
     [63, 64, 95, 126, 35, 47, 48, 52],
     [54, 57, 65, 90, 97, 122, 33, 37],
     [45, 46, 58, 59, 61, 63, 64, 95],
     [126, 35, 47, 48, 53, 54, 57, 65],
     [90, 97, 122, 43, 58, 45, 46, 48],
     [57, 65, 90, 97, 122, 43, 58, 69],
     [101, 45, 46, 48, 57, 65, 90, 97],
     [122, 43, 58, 76, 108, 45, 46, 48],
     [57, 65, 90, 97, 122, 43, 58, 45],
     [46, 48, 57, 65, 90, 97, 122, 35],
     [42, 43, 40, 41, 45, 46, 48, 57],
     [65, 70, 97, 102, 32, 35, 59, 40],
     [42, 45, 46, 48, 57, 65, 70, 97],
     [102, 45, 80, 112, 48, 57, 65, 90],
     [97, 122, 32, 45, 59, 61, 48, 57],
     [65, 90, 97, 122, 33, 37, 93, 95],
     [126, 36, 43, 45, 58, 65, 91, 97],
     [122, 32, 33, 37, 59, 93, 95, 126],
     [36, 43, 45, 58, 65, 91, 97, 122],
     [48, 57, 65, 70, 97, 102, 48, 57],
     [65, 70, 97, 102, 32, 45, 59, 61],
     [72, 104, 48, 57, 65, 90, 97, 122],
     [32, 45, 59, 61, 79, 111, 48, 57],
     [65, 90, 97, 122, 32, 45, 59, 61],
     [78, 110, 48, 57, 65, 90, 97, 122],
     [32, 45, 59, 61, 69, 101, 48, 57],
     [65, 90, 97, 122, 32, 45, 59, 61],
     [48, 57, 65, 90, 97, 122, 32, 45],
     [59, 61, 67, 99, 48, 57, 65, 90],
     [97, 122, 32, 45, 59, 61, 79, 111],
     [48, 57, 65, 90, 97, 122, 32, 45]]"

definition smp_trans_keys_75 :: "int list list" where
  "smp_trans_keys_75 =
    [[59, 61, 78, 110, 48, 57, 65, 90],
     [97, 122, 32, 45, 59, 61, 84, 116],
     [48, 57, 65, 90, 97, 122, 32, 45],
     [59, 61, 69, 101, 48, 57, 65, 90],
     [97, 122, 32, 45, 59, 61, 88, 120],
     [48, 57, 65, 90, 97, 122, 32, 45],
     [59, 61, 84, 116, 48, 57, 65, 90],
     [97, 122, 32, 45, 59, 61, 48, 57],
     [65, 90, 97, 122, 33, 37, 43, 58],
     [91, 93, 95, 126, 36, 42, 45, 47],
     [48, 57, 65, 90, 97, 122, 32, 33],
     [37, 47, 58, 59, 93, 95, 126, 36],
     [39, 40, 41, 42, 43, 45, 46, 48],
     [57, 65, 91, 97, 122, 32, 33, 37],
     [47, 58, 59, 93, 95, 126, 36, 39],
     [40, 41, 42, 43, 45, 57, 65, 91],
     [97, 122, 32, 33, 37, 45, 46, 47],
     [58, 59, 91, 93, 95, 126, 36, 43],
     [48, 57, 65, 90, 97, 122, 32, 33],
     [37, 45, 58, 59, 91, 93, 95, 126],
     [36, 43, 46, 47, 48, 57, 65, 90],
     [97, 122, 32, 33, 37, 58, 59, 91],
     [93, 95, 126, 36, 43, 45, 47, 48],
     [57, 65, 90, 97, 122, 32, 33, 37],
     [45, 46, 47, 58, 59, 91, 93, 95],
     [126, 36, 43, 48, 57, 65, 90, 97],
     [122, 32, 33, 37, 45, 58, 59, 91],
     [93, 95, 126, 36, 43, 46, 47, 48],
     [57, 65, 90, 97, 122, 32, 33, 37],
     [58, 59, 91, 93, 95, 126, 36, 43],
     [45, 47, 48, 57, 65, 90, 97, 122],
     [35, 42, 40, 41, 45, 46, 48, 57],
     [65, 70, 97, 102, 40, 41, 45, 46],
     [48, 57, 32, 59, 40, 41, 45, 46],
     [48, 57, 32, 33, 37, 39, 67, 126],
     [42, 43, 45, 46, 48, 57, 65, 90],
     [95, 122, 32, 33, 37, 39, 75, 126],
     [42, 43, 45, 46, 48, 57, 65, 90],
     [95, 122, 32, 33, 37, 39, 126, 42],
     [43, 45, 46, 48, 57, 65, 90, 95],
     [122, 32, 33, 37, 39, 89, 126, 42],
     [43, 45, 46, 48, 57, 65, 90, 95],
     [122, 32, 33, 37, 39, 69, 126, 42],
     [43, 45, 46, 48, 57, 65, 90, 95],
     [122, 32, 33, 37, 39, 126, 42, 43],
     [45, 46, 48, 57, 65, 90, 95, 122],
     [32, 33, 37, 39, 65, 126, 42, 43],
     [45, 46, 48, 57, 66, 90, 95, 122],
     [32, 33, 37, 39, 78, 126, 42, 43],
     [45, 46, 48, 57, 65, 90, 95, 122],
     [32, 33, 37, 39, 67, 126, 42, 43],
     [45, 46, 48, 57, 65, 90, 95, 122],
     [32, 33, 37, 39, 69, 126, 42, 43],
     [45, 46, 48, 57, 65, 90, 95, 122],
     [32, 33, 37, 39, 76, 126, 42, 43],
     [45, 46, 48, 57, 65, 90, 95, 122],
     [32, 33, 37, 39, 126, 42, 43, 45],
     [46, 48, 57, 65, 90, 95, 122, 32],
     [33, 37, 39, 84, 116, 126, 42, 43],
     [45, 46, 48, 57, 65, 90, 95, 122],
     [32, 33, 37, 39, 84, 116, 126, 42],
     [43, 45, 46, 48, 57, 65, 90, 95],
     [122, 32, 33, 37, 39, 80, 112, 126],
     [42, 43, 45, 46, 48, 57, 65, 90],
     [95, 122, 32, 33, 37, 39, 47, 126],
     [42, 43, 45, 57, 65, 90, 95, 122],
     [48, 57, 46, 48, 57, 48, 57, 32],
     [48, 57, 49, 54, 48, 57, 48, 57],
     [32, 13, 13, 32, 46, 32, 33, 37],
     [39, 78, 126, 42, 43, 45, 46, 48],
     [57, 65, 90, 95, 122, 32, 33, 37],
     [39, 70, 86, 126, 42, 43, 45, 46],
     [48, 57, 65, 90, 95, 122, 32, 33],
     [37, 39, 79, 126, 42, 43, 45, 46],
     [48, 57, 65, 90, 95, 122, 32, 33],
     [37, 39, 126, 42, 43, 45, 46, 48],
     [57, 65, 90, 95, 122, 32, 33, 37],
     [39, 73, 126, 42, 43, 45, 46, 48],
     [57, 65, 90, 95, 122, 32, 33, 37],
     [39, 84, 126, 42, 43, 45, 46, 48],
     [57, 65, 90, 95, 122, 32, 33, 37],
     [39, 69, 126, 42, 43, 45, 46, 48],
     [57, 65, 90, 95, 122, 32, 33, 37],
     [39, 126, 42, 43, 45, 46, 48, 57],
     [65, 90, 95, 122, 32, 33, 37, 39],
     [69, 126, 42, 43, 45, 46, 48, 57],
     [65, 90, 95, 122, 32, 33, 37, 39],
     [83, 126, 42, 43, 45, 46, 48, 57],
     [65, 90, 95, 122, 32, 33, 37, 39],
     [83, 126, 42, 43, 45, 46, 48, 57],
     [65, 90, 95, 122, 32, 33, 37, 39],
     [65, 126, 42, 43, 45, 46, 48, 57],
     [66, 90, 95, 122, 32, 33, 37, 39],
     [71, 126, 42, 43, 45, 46, 48, 57],
     [65, 90, 95, 122, 32, 33, 37, 39],
     [69, 126, 42, 43, 45, 46, 48, 57],
     [65, 90, 95, 122, 32, 33, 37, 39],
     [126, 42, 43, 45, 46, 48, 57, 65],
     [90, 95, 122, 32, 33, 37, 39, 79],
     [126, 42, 43, 45, 46, 48, 57, 65],
     [90, 95, 122, 32, 33, 37, 39, 84],
     [126, 42, 43, 45, 46, 48, 57, 65],
     [90, 95, 122, 32, 33, 37, 39, 73],
     [126, 42, 43, 45, 46, 48, 57, 65],
     [90, 95, 122, 32, 33, 37, 39, 70],
     [126, 42, 43, 45, 46, 48, 57, 65],
     [90, 95, 122, 32, 33, 37, 39, 89],
     [126, 42, 43, 45, 46, 48, 57, 65],
     [90, 95, 122, 32, 33, 37, 39, 126],
     [42, 43, 45, 46, 48, 57, 65, 90],
     [95, 122, 32, 33, 37, 39, 80, 126],
     [42, 43, 45, 46, 48, 57, 65, 90],
     [95, 122, 32, 33, 37, 39, 84, 126],
     [42, 43, 45, 46, 48, 57, 65, 90],
     [95, 122, 32, 33, 37, 39, 73, 126],
     [42, 43, 45, 46, 48, 57, 65, 90],
     [95, 122, 32, 33, 37, 39, 79, 126],
     [42, 43, 45, 46, 48, 57, 65, 90],
     [95, 122, 32, 33, 37, 39, 78, 126],
     [42, 43, 45, 46, 48, 57, 65, 90],
     [95, 122, 32, 33, 37, 39, 83, 126],
     [42, 43, 45, 46, 48, 57, 65, 90],
     [95, 122, 32, 33, 37, 39, 126, 42],
     [43, 45, 46, 48, 57, 65, 90, 95],
     [122, 32, 33, 37, 39, 82, 85, 126],
     [42, 43, 45, 46, 48, 57, 65, 90],
     [95, 122, 32, 33, 37, 39, 65, 126],
     [42, 43, 45, 46, 48, 57, 66, 90],
     [95, 122, 32, 33, 37, 39, 67, 126],
     [42, 43, 45, 46, 48, 57, 65, 90],
     [95, 122, 32, 33, 37, 39, 75, 126],
     [42, 43, 45, 46, 48, 57, 65, 90],
     [95, 122, 32, 33, 37, 39, 126, 42],
     [43, 45, 46, 48, 57, 65, 90, 95],
     [122, 32, 33, 37, 39, 66, 76, 83],
     [126, 42, 43, 45, 46, 48, 57, 65],
     [90, 95, 122, 32, 33, 37, 39, 76],
     [126, 42, 43, 45, 46, 48, 57, 65],
     [90, 95, 122, 32, 33, 37, 39, 73],
     [126, 42, 43, 45, 46, 48, 57, 65],
     [90, 95, 122, 32, 33, 37, 39, 83],
     [126, 42, 43, 45, 46, 48, 57, 65],
     [90, 95, 122, 32, 33, 37, 39, 72],
     [126, 42, 43, 45, 46, 48, 57, 65],
     [90, 95, 122, 32, 33, 37, 39, 126],
     [42, 43, 45, 46, 48, 57, 65, 90],
     [95, 122, 32, 33, 37, 39, 76, 126],
     [42, 43, 45, 46, 48, 57, 65, 90],
     [95, 122, 32, 33, 37, 39, 126, 42],
     [43, 45, 46, 48, 57, 65, 90, 95]]"

definition smp_trans_keys_76 :: "int list list" where
  "smp_trans_keys_76 =
    [[122, 32, 33, 37, 39, 72, 126, 42],
     [43, 45, 46, 48, 57, 65, 90, 95],
     [122, 32, 33, 37, 39, 126, 42, 43],
     [45, 46, 48, 57, 65, 90, 95, 122],
     [32, 33, 37, 39, 69, 126, 42, 43],
     [45, 46, 48, 57, 65, 90, 95, 122],
     [32, 33, 37, 39, 70, 71, 126, 42],
     [43, 45, 46, 48, 57, 65, 90, 95],
     [122, 32, 33, 37, 39, 69, 126, 42],
     [43, 45, 46, 48, 57, 65, 90, 95],
     [122, 32, 33, 37, 39, 82, 126, 42],
     [43, 45, 46, 48, 57, 65, 90, 95],
     [122, 32, 33, 37, 39, 126, 42, 43],
     [45, 46, 48, 57, 65, 90, 95, 122],
     [32, 33, 37, 39, 73, 126, 42, 43],
     [45, 46, 48, 57, 65, 90, 95, 122],
     [32, 33, 37, 39, 83, 126, 42, 43],
     [45, 46, 48, 57, 65, 90, 95, 122],
     [32, 33, 37, 39, 84, 126, 42, 43],
     [45, 46, 48, 57, 65, 90, 95, 122],
     [32, 33, 37, 39, 69, 126, 42, 43],
     [45, 46, 48, 57, 65, 90, 95, 122],
     [32, 33, 37, 39, 82, 126, 42, 43],
     [45, 46, 48, 57, 65, 90, 95, 122],
     [32, 33, 37, 39, 126, 42, 43, 45],
     [46, 48, 57, 65, 90, 95, 122, 32],
     [33, 37, 39, 73, 84, 85, 105, 126],
     [42, 43, 45, 46, 48, 57, 65, 90],
     [95, 122, 32, 33, 37, 39, 79, 126],
     [42, 43, 45, 46, 48, 57, 65, 90],
     [95, 122, 32, 33, 37, 39, 82, 126],
     [42, 43, 45, 46, 48, 57, 65, 90],
     [95, 122, 32, 33, 37, 39, 69, 126],
     [42, 43, 45, 46, 48, 57, 65, 90],
     [95, 122, 32, 33, 37, 39, 126, 42],
     [43, 45, 46, 48, 57, 65, 90, 95],
     [122, 32, 33, 37, 39, 66, 126, 42],
     [43, 45, 46, 48, 57, 65, 90, 95],
     [122, 32, 33, 37, 39, 83, 126, 42],
     [43, 45, 46, 48, 57, 65, 90, 95],
     [122, 32, 33, 37, 39, 67, 126, 42],
     [43, 45, 46, 48, 57, 65, 90, 95],
     [122, 32, 33, 37, 39, 82, 126, 42],
     [43, 45, 46, 48, 57, 65, 90, 95],
     [122, 32, 33, 37, 39, 73, 126, 42],
     [43, 45, 46, 48, 57, 65, 90, 95],
     [122, 32, 33, 37, 39, 66, 126, 42],
     [43, 45, 46, 48, 57, 65, 90, 95],
     [122, 32, 33, 37, 39, 69, 126, 42],
     [43, 45, 46, 48, 57, 65, 90, 95],
     [122, 32, 33, 37, 39, 126, 42, 43],
     [45, 46, 48, 57, 65, 90, 95, 122],
     [32, 33, 37, 39, 80, 126, 42, 43],
     [45, 46, 48, 57, 65, 90, 95, 122],
     [32, 33, 37, 39, 68, 126, 42, 43],
     [45, 46, 48, 57, 65, 90, 95, 122],
     [32, 33, 37, 39, 65, 126, 42, 43],
     [45, 46, 48, 57, 66, 90, 95, 122],
     [32, 33, 37, 39, 84, 126, 42, 43],
     [45, 46, 48, 57, 65, 90, 95, 122],
     [32, 33, 37, 39, 69, 126, 42, 43],
     [45, 46, 48, 57, 65, 90, 95, 122],
     [32, 33, 37, 39, 126, 42, 43, 45],
     [46, 48, 57, 65, 90, 95, 122, 32],
     [33, 37, 39, 73, 105, 126, 42, 43],
     [45, 46, 48, 57, 65, 90, 95, 122],
     [0]]"

definition smp_trans_keys :: "int list" where
  "smp_trans_keys =
     concat smp_trans_keys_1 @ concat smp_trans_keys_2 @ concat smp_trans_keys_3 @
     concat smp_trans_keys_4 @ concat smp_trans_keys_5 @ concat smp_trans_keys_6 @
     concat smp_trans_keys_7 @ concat smp_trans_keys_8 @ concat smp_trans_keys_9 @
     concat smp_trans_keys_10 @ concat smp_trans_keys_11 @ concat smp_trans_keys_12 @
     concat smp_trans_keys_13 @ concat smp_trans_keys_14 @ concat smp_trans_keys_15 @
     concat smp_trans_keys_16 @ concat smp_trans_keys_17 @ concat smp_trans_keys_18 @
     concat smp_trans_keys_19 @ concat smp_trans_keys_20 @ concat smp_trans_keys_21 @
     concat smp_trans_keys_22 @ concat smp_trans_keys_23 @ concat smp_trans_keys_24 @
     concat smp_trans_keys_25 @ concat smp_trans_keys_26 @ concat smp_trans_keys_27 @
     concat smp_trans_keys_28 @ concat smp_trans_keys_29 @ concat smp_trans_keys_30 @
     concat smp_trans_keys_31 @ concat smp_trans_keys_32 @ concat smp_trans_keys_33 @
     concat smp_trans_keys_34 @ concat smp_trans_keys_35 @ concat smp_trans_keys_36 @
     concat smp_trans_keys_37 @ concat smp_trans_keys_38 @ concat smp_trans_keys_39 @
     concat smp_trans_keys_40 @ concat smp_trans_keys_41 @ concat smp_trans_keys_42 @
     concat smp_trans_keys_43 @ concat smp_trans_keys_44 @ concat smp_trans_keys_45 @
     concat smp_trans_keys_46 @ concat smp_trans_keys_47 @ concat smp_trans_keys_48 @
     concat smp_trans_keys_49 @ concat smp_trans_keys_50 @ concat smp_trans_keys_51 @
     concat smp_trans_keys_52 @ concat smp_trans_keys_53 @ concat smp_trans_keys_54 @
     concat smp_trans_keys_55 @ concat smp_trans_keys_56 @ concat smp_trans_keys_57 @
     concat smp_trans_keys_58 @ concat smp_trans_keys_59 @ concat smp_trans_keys_60 @
     concat smp_trans_keys_61 @ concat smp_trans_keys_62 @ concat smp_trans_keys_63 @
     concat smp_trans_keys_64 @ concat smp_trans_keys_65 @ concat smp_trans_keys_66 @
     concat smp_trans_keys_67 @ concat smp_trans_keys_68 @ concat smp_trans_keys_69 @
     concat smp_trans_keys_70 @ concat smp_trans_keys_71 @ concat smp_trans_keys_72 @
     concat smp_trans_keys_73 @ concat smp_trans_keys_74 @ concat smp_trans_keys_75 @
     concat smp_trans_keys_76"

lemma smp_trans_keys_1_length: "int (length (concat smp_trans_keys_1)) = 1200"
  unfolding rows_length smp_trans_keys_1_def by (simp only: row_arith)

lemma smp_trans_keys_2_length: "int (length (concat smp_trans_keys_2)) = 1200"
  unfolding rows_length smp_trans_keys_2_def by (simp only: row_arith)

lemma smp_trans_keys_3_length: "int (length (concat smp_trans_keys_3)) = 1200"
  unfolding rows_length smp_trans_keys_3_def by (simp only: row_arith)

lemma smp_trans_keys_4_length: "int (length (concat smp_trans_keys_4)) = 1200"
  unfolding rows_length smp_trans_keys_4_def by (simp only: row_arith)

lemma smp_trans_keys_5_length: "int (length (concat smp_trans_keys_5)) = 1200"
  unfolding rows_length smp_trans_keys_5_def by (simp only: row_arith)

lemma smp_trans_keys_6_length: "int (length (concat smp_trans_keys_6)) = 1200"
  unfolding rows_length smp_trans_keys_6_def by (simp only: row_arith)

lemma smp_trans_keys_7_length: "int (length (concat smp_trans_keys_7)) = 1200"
  unfolding rows_length smp_trans_keys_7_def by (simp only: row_arith)

lemma smp_trans_keys_8_length: "int (length (concat smp_trans_keys_8)) = 1200"
  unfolding rows_length smp_trans_keys_8_def by (simp only: row_arith)

lemma smp_trans_keys_9_length: "int (length (concat smp_trans_keys_9)) = 1200"
  unfolding rows_length smp_trans_keys_9_def by (simp only: row_arith)

lemma smp_trans_keys_10_length: "int (length (concat smp_trans_keys_10)) = 1200"
  unfolding rows_length smp_trans_keys_10_def by (simp only: row_arith)

lemma smp_trans_keys_11_length: "int (length (concat smp_trans_keys_11)) = 1200"
  unfolding rows_length smp_trans_keys_11_def by (simp only: row_arith)

lemma smp_trans_keys_12_length: "int (length (concat smp_trans_keys_12)) = 1200"
  unfolding rows_length smp_trans_keys_12_def by (simp only: row_arith)

lemma smp_trans_keys_13_length: "int (length (concat smp_trans_keys_13)) = 1200"
  unfolding rows_length smp_trans_keys_13_def by (simp only: row_arith)

lemma smp_trans_keys_14_length: "int (length (concat smp_trans_keys_14)) = 1200"
  unfolding rows_length smp_trans_keys_14_def by (simp only: row_arith)

lemma smp_trans_keys_15_length: "int (length (concat smp_trans_keys_15)) = 1200"
  unfolding rows_length smp_trans_keys_15_def by (simp only: row_arith)

lemma smp_trans_keys_16_length: "int (length (concat smp_trans_keys_16)) = 1200"
  unfolding rows_length smp_trans_keys_16_def by (simp only: row_arith)

lemma smp_trans_keys_17_length: "int (length (concat smp_trans_keys_17)) = 1200"
  unfolding rows_length smp_trans_keys_17_def by (simp only: row_arith)

lemma smp_trans_keys_18_length: "int (length (concat smp_trans_keys_18)) = 1200"
  unfolding rows_length smp_trans_keys_18_def by (simp only: row_arith)

lemma smp_trans_keys_19_length: "int (length (concat smp_trans_keys_19)) = 1200"
  unfolding rows_length smp_trans_keys_19_def by (simp only: row_arith)

lemma smp_trans_keys_20_length: "int (length (concat smp_trans_keys_20)) = 1200"
  unfolding rows_length smp_trans_keys_20_def by (simp only: row_arith)

lemma smp_trans_keys_21_length: "int (length (concat smp_trans_keys_21)) = 1200"
  unfolding rows_length smp_trans_keys_21_def by (simp only: row_arith)

lemma smp_trans_keys_22_length: "int (length (concat smp_trans_keys_22)) = 1200"
  unfolding rows_length smp_trans_keys_22_def by (simp only: row_arith)

lemma smp_trans_keys_23_length: "int (length (concat smp_trans_keys_23)) = 1200"
  unfolding rows_length smp_trans_keys_23_def by (simp only: row_arith)

lemma smp_trans_keys_24_length: "int (length (concat smp_trans_keys_24)) = 1200"
  unfolding rows_length smp_trans_keys_24_def by (simp only: row_arith)

lemma smp_trans_keys_25_length: "int (length (concat smp_trans_keys_25)) = 1200"
  unfolding rows_length smp_trans_keys_25_def by (simp only: row_arith)

lemma smp_trans_keys_26_length: "int (length (concat smp_trans_keys_26)) = 1200"
  unfolding rows_length smp_trans_keys_26_def by (simp only: row_arith)

lemma smp_trans_keys_27_length: "int (length (concat smp_trans_keys_27)) = 1200"
  unfolding rows_length smp_trans_keys_27_def by (simp only: row_arith)

lemma smp_trans_keys_28_length: "int (length (concat smp_trans_keys_28)) = 1200"
  unfolding rows_length smp_trans_keys_28_def by (simp only: row_arith)

lemma smp_trans_keys_29_length: "int (length (concat smp_trans_keys_29)) = 1200"
  unfolding rows_length smp_trans_keys_29_def by (simp only: row_arith)

lemma smp_trans_keys_30_length: "int (length (concat smp_trans_keys_30)) = 1200"
  unfolding rows_length smp_trans_keys_30_def by (simp only: row_arith)

lemma smp_trans_keys_31_length: "int (length (concat smp_trans_keys_31)) = 1200"
  unfolding rows_length smp_trans_keys_31_def by (simp only: row_arith)

lemma smp_trans_keys_32_length: "int (length (concat smp_trans_keys_32)) = 1200"
  unfolding rows_length smp_trans_keys_32_def by (simp only: row_arith)

lemma smp_trans_keys_33_length: "int (length (concat smp_trans_keys_33)) = 1200"
  unfolding rows_length smp_trans_keys_33_def by (simp only: row_arith)

lemma smp_trans_keys_34_length: "int (length (concat smp_trans_keys_34)) = 1200"
  unfolding rows_length smp_trans_keys_34_def by (simp only: row_arith)

lemma smp_trans_keys_35_length: "int (length (concat smp_trans_keys_35)) = 1200"
  unfolding rows_length smp_trans_keys_35_def by (simp only: row_arith)

lemma smp_trans_keys_36_length: "int (length (concat smp_trans_keys_36)) = 1200"
  unfolding rows_length smp_trans_keys_36_def by (simp only: row_arith)

lemma smp_trans_keys_37_length: "int (length (concat smp_trans_keys_37)) = 1200"
  unfolding rows_length smp_trans_keys_37_def by (simp only: row_arith)

lemma smp_trans_keys_38_length: "int (length (concat smp_trans_keys_38)) = 1200"
  unfolding rows_length smp_trans_keys_38_def by (simp only: row_arith)

lemma smp_trans_keys_39_length: "int (length (concat smp_trans_keys_39)) = 1200"
  unfolding rows_length smp_trans_keys_39_def by (simp only: row_arith)

lemma smp_trans_keys_40_length: "int (length (concat smp_trans_keys_40)) = 1200"
  unfolding rows_length smp_trans_keys_40_def by (simp only: row_arith)

lemma smp_trans_keys_41_length: "int (length (concat smp_trans_keys_41)) = 1200"
  unfolding rows_length smp_trans_keys_41_def by (simp only: row_arith)

lemma smp_trans_keys_42_length: "int (length (concat smp_trans_keys_42)) = 1200"
  unfolding rows_length smp_trans_keys_42_def by (simp only: row_arith)

lemma smp_trans_keys_43_length: "int (length (concat smp_trans_keys_43)) = 1200"
  unfolding rows_length smp_trans_keys_43_def by (simp only: row_arith)

lemma smp_trans_keys_44_length: "int (length (concat smp_trans_keys_44)) = 1200"
  unfolding rows_length smp_trans_keys_44_def by (simp only: row_arith)

lemma smp_trans_keys_45_length: "int (length (concat smp_trans_keys_45)) = 1200"
  unfolding rows_length smp_trans_keys_45_def by (simp only: row_arith)

lemma smp_trans_keys_46_length: "int (length (concat smp_trans_keys_46)) = 1200"
  unfolding rows_length smp_trans_keys_46_def by (simp only: row_arith)

lemma smp_trans_keys_47_length: "int (length (concat smp_trans_keys_47)) = 1200"
  unfolding rows_length smp_trans_keys_47_def by (simp only: row_arith)

lemma smp_trans_keys_48_length: "int (length (concat smp_trans_keys_48)) = 1200"
  unfolding rows_length smp_trans_keys_48_def by (simp only: row_arith)

lemma smp_trans_keys_49_length: "int (length (concat smp_trans_keys_49)) = 1200"
  unfolding rows_length smp_trans_keys_49_def by (simp only: row_arith)

lemma smp_trans_keys_50_length: "int (length (concat smp_trans_keys_50)) = 1200"
  unfolding rows_length smp_trans_keys_50_def by (simp only: row_arith)

lemma smp_trans_keys_51_length: "int (length (concat smp_trans_keys_51)) = 1200"
  unfolding rows_length smp_trans_keys_51_def by (simp only: row_arith)

lemma smp_trans_keys_52_length: "int (length (concat smp_trans_keys_52)) = 1200"
  unfolding rows_length smp_trans_keys_52_def by (simp only: row_arith)

lemma smp_trans_keys_53_length: "int (length (concat smp_trans_keys_53)) = 1200"
  unfolding rows_length smp_trans_keys_53_def by (simp only: row_arith)

lemma smp_trans_keys_54_length: "int (length (concat smp_trans_keys_54)) = 1200"
  unfolding rows_length smp_trans_keys_54_def by (simp only: row_arith)

lemma smp_trans_keys_55_length: "int (length (concat smp_trans_keys_55)) = 1200"
  unfolding rows_length smp_trans_keys_55_def by (simp only: row_arith)

lemma smp_trans_keys_56_length: "int (length (concat smp_trans_keys_56)) = 1200"
  unfolding rows_length smp_trans_keys_56_def by (simp only: row_arith)

lemma smp_trans_keys_57_length: "int (length (concat smp_trans_keys_57)) = 1200"
  unfolding rows_length smp_trans_keys_57_def by (simp only: row_arith)

lemma smp_trans_keys_58_length: "int (length (concat smp_trans_keys_58)) = 1200"
  unfolding rows_length smp_trans_keys_58_def by (simp only: row_arith)

lemma smp_trans_keys_59_length: "int (length (concat smp_trans_keys_59)) = 1200"
  unfolding rows_length smp_trans_keys_59_def by (simp only: row_arith)

lemma smp_trans_keys_60_length: "int (length (concat smp_trans_keys_60)) = 1200"
  unfolding rows_length smp_trans_keys_60_def by (simp only: row_arith)

lemma smp_trans_keys_61_length: "int (length (concat smp_trans_keys_61)) = 1200"
  unfolding rows_length smp_trans_keys_61_def by (simp only: row_arith)

lemma smp_trans_keys_62_length: "int (length (concat smp_trans_keys_62)) = 1200"
  unfolding rows_length smp_trans_keys_62_def by (simp only: row_arith)

lemma smp_trans_keys_63_length: "int (length (concat smp_trans_keys_63)) = 1200"
  unfolding rows_length smp_trans_keys_63_def by (simp only: row_arith)

lemma smp_trans_keys_64_length: "int (length (concat smp_trans_keys_64)) = 1200"
  unfolding rows_length smp_trans_keys_64_def by (simp only: row_arith)

lemma smp_trans_keys_65_length: "int (length (concat smp_trans_keys_65)) = 1200"
  unfolding rows_length smp_trans_keys_65_def by (simp only: row_arith)

lemma smp_trans_keys_66_length: "int (length (concat smp_trans_keys_66)) = 1200"
  unfolding rows_length smp_trans_keys_66_def by (simp only: row_arith)

lemma smp_trans_keys_67_length: "int (length (concat smp_trans_keys_67)) = 1200"
  unfolding rows_length smp_trans_keys_67_def by (simp only: row_arith)

lemma smp_trans_keys_68_length: "int (length (concat smp_trans_keys_68)) = 1200"
  unfolding rows_length smp_trans_keys_68_def by (simp only: row_arith)

lemma smp_trans_keys_69_length: "int (length (concat smp_trans_keys_69)) = 1200"
  unfolding rows_length smp_trans_keys_69_def by (simp only: row_arith)

lemma smp_trans_keys_70_length: "int (length (concat smp_trans_keys_70)) = 1200"
  unfolding rows_length smp_trans_keys_70_def by (simp only: row_arith)

lemma smp_trans_keys_71_length: "int (length (concat smp_trans_keys_71)) = 1200"
  unfolding rows_length smp_trans_keys_71_def by (simp only: row_arith)

lemma smp_trans_keys_72_length: "int (length (concat smp_trans_keys_72)) = 1200"
  unfolding rows_length smp_trans_keys_72_def by (simp only: row_arith)

lemma smp_trans_keys_73_length: "int (length (concat smp_trans_keys_73)) = 1200"
  unfolding rows_length smp_trans_keys_73_def by (simp only: row_arith)

lemma smp_trans_keys_74_length: "int (length (concat smp_trans_keys_74)) = 1200"
  unfolding rows_length smp_trans_keys_74_def by (simp only: row_arith)

lemma smp_trans_keys_75_length: "int (length (concat smp_trans_keys_75)) = 1200"
  unfolding rows_length smp_trans_keys_75_def by (simp only: row_arith)

lemma smp_trans_keys_76_length: "int (length (concat smp_trans_keys_76)) = 529"
  unfolding rows_length smp_trans_keys_76_def by (simp only: row_arith)

lemma smp_trans_keys_length: "int (length smp_trans_keys) = 90529"
  by (simp only: smp_trans_keys_def length_append of_nat_add row_arith
      smp_trans_keys_1_length smp_trans_keys_2_length smp_trans_keys_3_length
      smp_trans_keys_4_length smp_trans_keys_5_length smp_trans_keys_6_length
      smp_trans_keys_7_length smp_trans_keys_8_length smp_trans_keys_9_length
      smp_trans_keys_10_length smp_trans_keys_11_length smp_trans_keys_12_length
      smp_trans_keys_13_length smp_trans_keys_14_length smp_trans_keys_15_length
      smp_trans_keys_16_length smp_trans_keys_17_length smp_trans_keys_18_length
      smp_trans_keys_19_length smp_trans_keys_20_length smp_trans_keys_21_length
      smp_trans_keys_22_length smp_trans_keys_23_length smp_trans_keys_24_length
      smp_trans_keys_25_length smp_trans_keys_26_length smp_trans_keys_27_length
      smp_trans_keys_28_length smp_trans_keys_29_length smp_trans_keys_30_length
      smp_trans_keys_31_length smp_trans_keys_32_length smp_trans_keys_33_length
      smp_trans_keys_34_length smp_trans_keys_35_length smp_trans_keys_36_length
      smp_trans_keys_37_length smp_trans_keys_38_length smp_trans_keys_39_length
      smp_trans_keys_40_length smp_trans_keys_41_length smp_trans_keys_42_length
      smp_trans_keys_43_length smp_trans_keys_44_length smp_trans_keys_45_length
      smp_trans_keys_46_length smp_trans_keys_47_length smp_trans_keys_48_length
      smp_trans_keys_49_length smp_trans_keys_50_length smp_trans_keys_51_length
      smp_trans_keys_52_length smp_trans_keys_53_length smp_trans_keys_54_length
      smp_trans_keys_55_length smp_trans_keys_56_length smp_trans_keys_57_length
      smp_trans_keys_58_length smp_trans_keys_59_length smp_trans_keys_60_length
      smp_trans_keys_61_length smp_trans_keys_62_length smp_trans_keys_63_length
      smp_trans_keys_64_length smp_trans_keys_65_length smp_trans_keys_66_length
      smp_trans_keys_67_length smp_trans_keys_68_length smp_trans_keys_69_length
      smp_trans_keys_70_length smp_trans_keys_71_length smp_trans_keys_72_length
      smp_trans_keys_73_length smp_trans_keys_74_length smp_trans_keys_75_length
      smp_trans_keys_76_length)

end
