(* ===== verification/Sip_Msg_Indicies.thy ===== *)
theory Sip_Msg_Indicies
  imports Sip_Msg_Early
begin

text \<open>
  The array \<open>indicies\<close> of ext/sip_parser/sip_message_parser.c and which transitions it has where.
\<close>

definition smp_indicies_1 :: "int list list" where
  "smp_indicies_1 =
    [[0, 2, 2, 2, 3, 4, 5, 6],
     [7, 8, 9, 10, 11, 12, 13, 14],
     [6, 15, 2, 2, 2, 2, 2, 2],
     [1, 16, 1, 17, 2, 2, 2, 3],
     [4, 5, 6, 7, 8, 9, 10, 11],
     [12, 13, 14, 6, 15, 2, 2, 2],
     [2, 2, 2, 1, 18, 1, 19, 20],
     [20, 20, 20, 20, 20, 20, 20, 20],
     [1, 22, 23, 22, 23, 21, 21, 1],
     [24, 25, 24, 24, 24, 24, 1, 26],
     [27, 28, 29, 30, 31, 27, 31, 32],
     [27, 27, 27, 27, 27, 1, 33, 34],
     [33, 34, 1, 35, 35, 1, 36, 36],
     [1, 37, 37, 1, 38, 1, 39, 1],
     [40, 41, 1, 42, 1, 43, 44, 1],
     [45, 1, 46, 47, 47, 47, 48, 49],
     [50, 51, 52, 53, 54, 55, 56, 57],
     [58, 48, 49, 50, 51, 52, 53, 54],
     [55, 56, 57, 58, 47, 47, 47, 47],
     [47, 47, 1, 59, 1, 60, 60, 61],
     [61, 61, 62, 61, 61, 61, 61, 61],
     [61, 1, 63, 63, 64, 1, 71, 72],
     [71, 1, 66, 67, 68, 69, 70, 1],
     [65, 79, 1, 74, 75, 76, 77, 78],
     [1, 1, 73, 73, 1, 74, 1, 75],
     [1, 76, 1, 77, 1, 80, 1, 73],
     [46, 73, 47, 47, 47, 48, 49, 50],
     [51, 52, 53, 54, 55, 56, 57, 58],
     [48, 49, 50, 51, 52, 53, 54, 55],
     [56, 57, 58, 47, 47, 47, 47, 47],
     [47, 1, 60, 60, 61, 61, 61, 62],
     [81, 82, 83, 81, 82, 83, 61, 61],
     [61, 61, 61, 61, 1, 60, 60, 61],
     [61, 61, 62, 84, 84, 61, 61, 61],
     [61, 61, 61, 1, 60, 60, 61, 61],
     [61, 62, 85, 85, 61, 61, 61, 61],
     [61, 61, 1, 60, 60, 61, 61, 61],
     [86, 61, 62, 61, 61, 61, 61, 61],
     [1, 60, 60, 61, 61, 61, 62, 87],
     [87, 61, 61, 61, 61, 61, 61, 1],
     [60, 60, 61, 61, 61, 62, 88, 88],
     [61, 61, 61, 61, 61, 61, 1, 89],
     [89, 61, 61, 61, 90, 61, 61, 61],
     [61, 61, 61, 1, 91, 91, 92, 1],
     [92, 93, 92, 94, 94, 94, 94, 94],
     [94, 94, 94, 94, 1, 95, 1, 96],
     [96, 1, 96, 96, 94, 94, 94, 94],
     [94, 94, 94, 94, 94, 1, 97, 98],
     [98, 99, 98, 98, 98, 98, 98, 98],
     [1, 100, 100, 100, 100, 100, 100, 100],
     [100, 100, 1, 97, 100, 100, 100, 100],
     [100, 100, 100, 100, 100, 1, 60, 60],
     [61, 61, 61, 62, 101, 101, 61, 61],
     [61, 61, 61, 61, 1, 60, 60, 61],
     [61, 61, 62, 102, 102, 61, 61, 61],
     [61, 61, 61, 1, 60, 60, 61, 61],
     [61, 62, 103, 104, 103, 104, 61, 61],
     [61, 61, 61, 61, 1, 60, 60, 61],
     [61, 61, 62, 105, 105, 61, 61, 61],
     [61, 61, 61, 1, 60, 60, 61, 61],
     [61, 62, 106, 106, 61, 61, 61, 61],
     [61, 61, 1, 107, 107, 61, 61, 61],
     [108, 61, 61, 61, 61, 61, 61, 1],
     [109, 109, 110, 1, 111, 112, 111, 113],
     [114, 113, 113, 115, 116, 116, 113, 1],
     [66, 67, 68, 69, 70, 1, 113, 113],
     [113, 113, 113, 65, 117, 1, 118, 46],
     [118, 47, 47, 47, 48, 49, 50, 51],
     [52, 53, 54, 55, 56, 57, 58, 48],
     [49, 50, 51, 52, 53, 54, 55, 56],
     [57, 58, 47, 47, 47, 47, 47, 47],
     [1, 119, 120, 119, 113, 114, 113, 113],
     [115, 116, 116, 113, 1, 66, 67, 68],
     [69, 70, 1, 113, 113, 113, 113, 113],
     [65, 121, 1, 122, 46, 122, 47, 47],
     [47, 48, 49, 50, 51, 52, 53, 54],
     [55, 56, 57, 58, 48, 49, 50, 51],
     [52, 53, 54, 55, 56, 57, 58, 47],
     [47, 47, 47, 47, 47, 1, 122, 79],
     [122, 123, 1, 74, 75, 76, 77, 78],
     [1, 73, 79, 124, 124, 1, 74, 75],
     [76, 77, 78, 1, 1, 73, 79, 125],
     [125, 1, 74, 75, 76, 77, 78, 1],
     [1, 73, 79, 126, 126, 1, 74, 75],
     [76, 77, 78, 1, 1, 73, 79, 127],
     [128, 128, 1, 74, 75, 76, 77, 78],
     [1, 1, 73, 79, 129, 130, 131, 132],
     [133, 129, 129, 129, 136, 129, 129, 1],
     [74, 75, 76, 77, 78, 1, 1, 129],
     [134, 135, 135, 73, 73, 79, 73, 73],
     [138, 139, 73, 73, 140, 73, 1, 73],
     [74, 75, 76, 77, 78, 1, 73, 73],
     [137, 79, 1, 74, 75, 76, 77, 78],
     [1, 1, 141, 141, 141, 73, 79, 1],
     [74, 75, 76, 77, 78, 1, 1, 137],
     [137, 137, 73, 79, 139, 142, 139, 140],
     [139, 139, 1, 74, 75, 76, 77, 78],
     [1, 1, 139, 139, 139, 139, 73, 79],
     [1, 74, 75, 76, 77, 78, 1, 1],
     [143, 143, 143, 73, 79, 1, 74, 75],
     [76, 77, 78, 1, 1, 139, 139, 139],
     [73, 79, 144, 145, 146, 136, 1, 74],
     [75, 76, 77, 78, 1, 1, 147, 148],
     [148, 73, 79, 149, 150, 149, 1, 74],
     [75, 76, 77, 78, 1, 1, 151, 151],
     [151, 73, 79, 149, 149, 1, 74, 75],
     [76, 77, 78, 1, 1, 151, 151, 151],
     [73, 79, 149, 152, 149, 1, 74, 75],
     [76, 77, 78, 1, 1, 151, 151, 151],
     [73, 79, 1, 74, 75, 76, 77, 78],
     [1, 1, 151, 153, 153, 73, 79, 154],
     [155, 156, 157, 158, 159, 154, 1, 74],
     [75, 76, 77, 78, 1, 1, 153, 153],
     [153, 73, 79, 154, 154, 1, 74, 75],
     [76, 77, 78, 1, 1, 153, 153, 153],
     [73, 79, 156, 157, 158, 159, 1, 74],
     [75, 76, 77, 78, 1, 1, 151, 153],
     [153, 73, 79, 160, 162, 1, 74, 75],
     [76, 77, 78, 1, 1, 161, 163, 73],
     [79, 164, 1, 74, 75, 76, 77, 78],
     [1, 1, 165, 73, 79, 166, 1, 74],
     [75, 76, 77, 78, 1, 1, 167, 73],
     [79, 1, 74, 75, 76, 77, 78, 1],
     [1, 168, 73, 79, 169, 170, 171, 1],
     [74, 75, 76, 77, 78, 1, 1, 73],
     [79, 172, 173, 174, 175, 176, 172, 172],
     [174, 175, 176, 172, 1, 74, 75, 76],
     [77, 78, 1, 1, 172, 172, 172, 172],
     [73, 73, 79, 73, 178, 73, 179, 180],
     [181, 182, 73, 73, 73, 1, 73, 74],
     [75, 76, 77, 78, 1, 73, 73, 73],
     [177, 79, 1, 74, 75, 76, 77, 78],
     [1, 1, 183, 183, 183, 73, 79, 1],
     [74, 75, 76, 77, 78, 1, 1, 177],
     [177, 177, 73, 73, 79, 73, 185, 73],
     [179, 186, 181, 182, 73, 73, 73, 1],
     [73, 74, 75, 76, 77, 78, 1, 73],
     [73, 73, 184, 73, 79, 73, 188, 73],
     [189, 190, 191, 73, 73, 73, 1, 73],
     [74, 75, 76, 77, 78, 1, 73, 73],
     [73, 187, 79, 1, 74, 75, 76, 77],
     [78, 1, 1, 192, 192, 192, 73, 79],
     [1, 74, 75, 76, 77, 78, 1, 1],
     [187, 187, 187, 73, 193, 194, 193, 195],
     [196, 1, 74, 75, 76, 77, 78, 1],
     [73, 197, 198, 197, 199, 200, 1, 74],
     [75, 76, 77, 78, 1, 73, 201, 1],
     [202, 46, 202, 47, 47, 47, 48, 49],
     [50, 51, 52, 53, 54, 55, 56, 57],
     [58, 48, 49, 50, 51, 52, 53, 54]]"

definition smp_indicies_2 :: "int list list" where
  "smp_indicies_2 =
    [[55, 56, 57, 58, 47, 47, 47, 47],
     [47, 47, 1, 202, 79, 202, 199, 200],
     [1, 74, 75, 76, 77, 78, 1, 73],
     [199, 203, 199, 204, 205, 204, 204, 206],
     [207, 207, 204, 1, 74, 75, 76, 77],
     [78, 1, 204, 204, 204, 204, 204, 73],
     [208, 1, 209, 46, 209, 47, 47, 47],
     [48, 49, 50, 51, 52, 53, 54, 55],
     [56, 57, 58, 48, 49, 50, 51, 52],
     [53, 54, 55, 56, 57, 58, 47, 47],
     [47, 47, 47, 47, 1, 209, 210, 209],
     [204, 205, 204, 204, 206, 207, 207, 204],
     [1, 74, 75, 76, 77, 78, 1, 204],
     [204, 204, 204, 204, 73, 211, 212, 211],
     [213, 213, 213, 214, 213, 1, 74, 75],
     [76, 77, 78, 1, 213, 213, 213, 213],
     [213, 73, 215, 216, 215, 213, 213, 213],
     [123, 213, 1, 74, 75, 76, 77, 78],
     [1, 213, 213, 213, 213, 213, 73, 217],
     [1, 218, 46, 218, 47, 47, 47, 48],
     [49, 50, 51, 52, 53, 54, 55, 56],
     [57, 58, 48, 49, 50, 51, 52, 53],
     [54, 55, 56, 57, 58, 47, 47, 47],
     [47, 47, 47, 1, 218, 79, 218, 213],
     [213, 213, 123, 213, 1, 74, 75, 76],
     [77, 78, 1, 213, 213, 213, 213, 213],
     [73, 219, 219, 61, 61, 61, 220, 221],
     [221, 61, 61, 61, 61, 61, 61, 1],
     [222, 222, 223, 1, 224, 225, 224, 226],
     [227, 226, 226, 228, 230, 231, 230, 231],
     [226, 226, 226, 226, 229, 226, 229, 1],
     [232, 1, 233, 233, 1, 234, 235, 234],
     [226, 227, 226, 226, 228, 230, 231, 230],
     [231, 226, 226, 226, 226, 229, 226, 229],
     [1, 236, 1, 237, 237, 1, 237, 237],
     [238, 1, 240, 241, 240, 241, 239, 239],
     [1, 242, 243, 242, 242, 242, 242, 1],
     [244, 245, 246, 247, 248, 249, 248, 250],
     [244, 244, 244, 244, 244, 1, 244, 245],
     [246, 251, 249, 252, 244, 244, 244, 244],
     [244, 1, 245, 253, 254, 245, 255, 245],
     [245, 245, 245, 245, 1, 256, 256, 256],
     [1, 245, 245, 245, 1, 254, 257, 254],
     [255, 254, 254, 254, 254, 254, 254, 1],
     [258, 258, 258, 1, 254, 254, 254, 1],
     [259, 260, 261, 250, 262, 263, 263, 1],
     [264, 265, 264, 266, 266, 266, 1, 264],
     [264, 266, 266, 266, 1, 264, 267, 264],
     [266, 266, 266, 1, 266, 263, 263, 1],
     [268, 269, 270, 249, 248, 268, 263, 263],
     [263, 1, 268, 268, 263, 263, 263, 1],
     [270, 249, 248, 266, 263, 263, 1, 271],
     [273, 272, 274, 1, 275, 276, 1, 277],
     [278, 1, 279, 1, 249, 248, 1, 280],
     [281, 280, 282, 1, 283, 1, 284, 46],
     [284, 47, 47, 47, 48, 49, 50, 51],
     [52, 53, 54, 55, 56, 57, 58, 48],
     [49, 50, 51, 52, 53, 54, 55, 56],
     [57, 58, 47, 47, 47, 47, 47, 47],
     [1, 284, 285, 284, 282, 1, 286, 1],
     [287, 46, 287, 47, 47, 47, 48, 49],
     [50, 51, 52, 53, 54, 55, 56, 57],
     [58, 48, 49, 50, 51, 52, 53, 54],
     [55, 56, 57, 58, 47, 47, 47, 47],
     [47, 47, 1, 287, 287, 282, 1, 282],
     [288, 282, 289, 289, 289, 290, 290, 289],
     [289, 289, 289, 289, 289, 1, 291, 1],
     [292, 292, 1, 292, 292, 289, 289, 289],
     [290, 290, 289, 289, 289, 289, 289, 289],
     [1, 293, 294, 293, 289, 289, 289, 282],
     [295, 289, 289, 289, 289, 289, 289, 1],
     [293, 296, 293, 282, 295, 1, 297, 1],
     [298, 298, 1, 298, 298, 282, 295, 1],
     [295, 299, 295, 300, 301, 300, 300, 302],
     [300, 300, 300, 300, 300, 300, 1, 303],
     [1, 304, 304, 1, 304, 304, 300, 301],
     [300, 300, 302, 300, 300, 300, 300, 300],
     [300, 1, 305, 285, 305, 300, 300, 300],
     [282, 300, 300, 300, 300, 300, 300, 1],
     [305, 306, 305, 282, 1, 307, 1, 287],
     [287, 1, 301, 313, 314, 315, 308, 309],
     [310, 311, 312, 301, 1, 301, 1, 308],
     [1, 309, 1, 310, 1, 311, 1, 316],
     [1, 301, 301, 1, 305, 285, 305, 282],
     [1, 301, 301, 301, 1, 318, 317, 317],
     [317, 1, 320, 319, 319, 319, 1, 320],
     [321, 321, 321, 1, 320, 322, 322, 322],
     [1, 320, 1, 324, 323, 323, 323, 1],
     [326, 325, 325, 325, 1, 326, 327, 327],
     [327, 1, 326, 328, 328, 328, 1, 326],
     [1, 330, 329, 329, 329, 1, 332, 331],
     [331, 331, 1, 332, 333, 333, 333, 1],
     [332, 334, 334, 334, 1, 332, 1, 336],
     [335, 335, 335, 1, 338, 337, 337, 337],
     [1, 338, 339, 339, 339, 1, 338, 340],
     [340, 340, 1, 338, 1, 342, 341, 341],
     [341, 1, 344, 343, 343, 343, 1, 344],
     [345, 345, 345, 1, 344, 346, 346, 346],
     [1, 344, 1, 348, 347, 347, 347, 1],
     [350, 349, 349, 349, 1, 350, 351, 351],
     [351, 1, 350, 352, 352, 352, 1, 350],
     [1, 353, 354, 355, 357, 356, 358, 358],
     [1, 359, 361, 360, 360, 360, 1, 362],
     [363, 364, 365, 1, 366, 1, 367, 368],
     [369, 370, 1, 371, 1, 372, 373, 374],
     [375, 1, 314, 1, 314, 375, 1, 314],
     [372, 1, 376, 314, 375, 372, 1, 314],
     [372, 1, 371, 370, 1, 371, 367, 1],
     [371, 377, 370, 367, 1, 371, 367, 1],
     [366, 365, 1, 366, 362, 1, 366, 378],
     [365, 362, 1, 366, 362, 1, 361, 379],
     [379, 379, 1, 361, 380, 380, 380, 1],
     [361, 1, 372, 381, 381, 381, 1, 314],
     [382, 382, 382, 1, 314, 383, 383, 383],
     [1, 314, 372, 372, 372, 1, 359, 361],
     [384, 360, 360, 1, 359, 361, 385, 379],
     [379, 1, 359, 361, 380, 380, 380, 1],
     [359, 386, 361, 384, 387, 360, 360, 1],
     [359, 361, 385, 379, 379, 379, 1, 359],
     [361, 379, 379, 379, 1, 359, 361, 387],
     [360, 360, 1, 314, 381, 381, 381, 1],
     [361, 360, 360, 360, 1, 388, 389, 390],
     [314, 391, 392, 392, 1, 359, 394, 314],
     [393, 393, 393, 1, 394, 314, 395, 395],
     [395, 1, 394, 314, 396, 396, 396, 1],
     [394, 314, 1, 381, 381, 381, 1, 359],
     [394, 314, 397, 393, 393, 1, 359, 394],
     [314, 398, 395, 395, 1, 359, 394, 314],
     [396, 396, 396, 1, 359, 399, 394, 314],
     [397, 400, 393, 393, 1, 359, 394, 314],
     [398, 395, 395, 395, 1, 359, 394, 314],
     [395, 395, 395, 1, 359, 394, 314, 400],
     [393, 393, 1, 394, 314, 393, 393, 393],
     [1, 401, 402, 403, 314, 404, 405, 405],
     [1, 359, 407, 314, 406, 406, 406, 1],
     [407, 314, 408, 408, 408, 1, 407, 314],
     [409, 409, 409, 1, 407, 314, 1, 388],
     [389, 390, 391, 392, 392, 1, 359, 407],
     [314, 410, 406, 406, 1, 359, 407, 314],
     [411, 408, 408, 1, 359, 407, 314, 409],
     [409, 409, 1, 359, 412, 407, 314, 410],
     [413, 406, 406, 1, 359, 407, 314, 411],
     [408, 408, 408, 1, 359, 407, 314, 408],
     [408, 408, 1, 359, 407, 314, 413, 406],
     [406, 1, 407, 314, 406, 406, 406, 1],
     [414, 415, 416, 314, 417, 418, 418, 1],
     [359, 420, 314, 419, 419, 419, 1, 420],
     [314, 421, 421, 421, 1, 420, 314, 422],
     [422, 422, 1, 420, 314, 1, 401, 402],
     [403, 404, 405, 405, 1, 359, 420, 314]]"

definition smp_indicies_3 :: "int list list" where
  "smp_indicies_3 =
    [[423, 419, 419, 1, 359, 420, 314, 424],
     [421, 421, 1, 359, 420, 314, 422, 422],
     [422, 1, 359, 425, 420, 314, 423, 426],
     [419, 419, 1, 359, 420, 314, 424, 421],
     [421, 421, 1, 359, 420, 314, 421, 421],
     [421, 1, 359, 420, 314, 426, 419, 419],
     [1, 420, 314, 419, 419, 419, 1, 427],
     [428, 429, 314, 430, 431, 431, 1, 359],
     [433, 314, 432, 432, 432, 1, 433, 314],
     [434, 434, 434, 1, 433, 314, 435, 435],
     [435, 1, 433, 314, 1, 414, 415, 416],
     [417, 418, 418, 1, 359, 433, 314, 436],
     [432, 432, 1, 359, 433, 314, 437, 434],
     [434, 1, 359, 433, 314, 435, 435, 435],
     [1, 359, 438, 433, 314, 436, 439, 432],
     [432, 1, 359, 433, 314, 437, 434, 434],
     [434, 1, 359, 433, 314, 434, 434, 434],
     [1, 359, 433, 314, 439, 432, 432, 1],
     [433, 314, 432, 432, 432, 1, 440, 441],
     [442, 314, 443, 444, 444, 1, 359, 446],
     [314, 445, 445, 445, 1, 446, 314, 447],
     [447, 447, 1, 446, 314, 448, 448, 448],
     [1, 446, 314, 1, 427, 428, 429, 430],
     [431, 431, 1, 359, 446, 314, 449, 445],
     [445, 1, 359, 446, 314, 450, 447, 447],
     [1, 359, 446, 314, 448, 448, 448, 1],
     [359, 451, 446, 314, 449, 452, 445, 445],
     [1, 359, 446, 314, 450, 447, 447, 447],
     [1, 359, 446, 314, 447, 447, 447, 1],
     [359, 446, 314, 452, 445, 445, 1, 446],
     [314, 445, 445, 445, 1, 453, 1, 454],
     [455, 456, 314, 457, 458, 458, 1, 359],
     [460, 314, 459, 459, 459, 1, 460, 314],
     [461, 461, 461, 1, 460, 314, 462, 462],
     [462, 1, 460, 314, 1, 440, 441, 442],
     [443, 444, 444, 1, 359, 460, 314, 463],
     [459, 459, 1, 359, 460, 314, 464, 461],
     [461, 1, 359, 460, 314, 462, 462, 462],
     [1, 359, 465, 460, 314, 463, 466, 459],
     [459, 1, 359, 460, 314, 464, 461, 461],
     [461, 1, 359, 460, 314, 461, 461, 461],
     [1, 359, 460, 314, 466, 459, 459, 1],
     [460, 314, 459, 459, 459, 1, 467, 1],
     [298, 46, 298, 47, 47, 47, 48, 49],
     [50, 51, 52, 53, 54, 55, 56, 57],
     [58, 48, 49, 50, 51, 52, 53, 54],
     [55, 56, 57, 58, 47, 47, 47, 47],
     [47, 47, 1, 468, 468, 61, 61, 61],
     [469, 61, 61, 61, 61, 61, 61, 1],
     [470, 470, 471, 1, 471, 472, 471, 473],
     [473, 473, 473, 473, 473, 473, 473, 473],
     [1, 474, 1, 475, 46, 475, 47, 47],
     [47, 48, 49, 50, 51, 52, 53, 54],
     [55, 56, 57, 58, 48, 49, 50, 51],
     [52, 53, 54, 55, 56, 57, 58, 47],
     [47, 47, 47, 47, 47, 1, 475, 476],
     [475, 473, 473, 473, 473, 473, 473, 473],
     [473, 473, 1, 477, 478, 477, 479, 479],
     [479, 480, 479, 479, 479, 479, 479, 1],
     [481, 482, 481, 483, 1, 484, 1, 485],
     [485, 1, 485, 485, 483, 1, 483, 486],
     [483, 487, 487, 487, 487, 487, 487, 487],
     [487, 487, 1, 488, 1, 489, 489, 1],
     [489, 489, 487, 487, 487, 487, 487, 487],
     [487, 487, 487, 1, 490, 1, 485, 46],
     [485, 47, 47, 47, 48, 49, 50, 51],
     [52, 53, 54, 55, 56, 57, 58, 48],
     [49, 50, 51, 52, 53, 54, 55, 56],
     [57, 58, 47, 47, 47, 47, 47, 47],
     [1, 491, 491, 61, 61, 61, 492, 61],
     [61, 61, 61, 61, 61, 1, 493, 493],
     [494, 1, 494, 495, 494, 496, 1, 497],
     [1, 498, 498, 1, 498, 498, 496, 1],
     [499, 500, 1, 499, 501, 1, 499, 502],
     [1, 499, 503, 1, 499, 504, 1, 499],
     [505, 1, 499, 506, 1, 499, 507, 1],
     [499, 1, 107, 107, 61, 61, 61, 108],
     [508, 508, 61, 61, 61, 61, 61, 61],
     [1, 60, 60, 61, 61, 61, 62, 509],
     [509, 61, 61, 61, 61, 61, 61, 1],
     [60, 60, 61, 61, 61, 510, 61, 62],
     [61, 61, 61, 61, 61, 1, 60, 60],
     [61, 61, 61, 62, 511, 511, 61, 61],
     [61, 61, 61, 61, 1, 60, 60, 61],
     [61, 61, 62, 512, 512, 61, 61, 61],
     [61, 61, 61, 1, 60, 60, 61, 61],
     [61, 62, 513, 513, 61, 61, 61, 61],
     [61, 61, 1, 60, 60, 61, 61, 61],
     [62, 514, 514, 61, 61, 61, 61, 61],
     [61, 1, 60, 60, 61, 61, 61, 62],
     [515, 515, 61, 61, 61, 61, 61, 61],
     [1, 60, 60, 61, 61, 61, 62, 516],
     [516, 61, 61, 61, 61, 61, 61, 1],
     [60, 60, 61, 61, 61, 62, 517, 517],
     [61, 61, 61, 61, 61, 61, 1, 60],
     [60, 61, 61, 61, 62, 518, 518, 61],
     [61, 61, 61, 61, 61, 1, 519, 519],
     [61, 61, 61, 520, 61, 61, 61, 61],
     [61, 61, 1, 521, 521, 522, 1, 522],
     [523, 522, 524, 1, 525, 1, 526, 526],
     [1, 526, 526, 524, 1, 527, 528, 1],
     [527, 529, 1, 527, 530, 1, 527, 1],
     [60, 60, 61, 61, 61, 62, 531, 531],
     [61, 61, 61, 61, 61, 61, 1, 60],
     [60, 61, 61, 61, 62, 532, 532, 61],
     [61, 61, 61, 61, 61, 1, 60, 60],
     [61, 61, 61, 62, 533, 533, 61, 61],
     [61, 61, 61, 61, 1, 60, 60, 61],
     [61, 61, 62, 534, 534, 61, 61, 61],
     [61, 61, 61, 1, 60, 60, 61, 61],
     [61, 535, 61, 62, 61, 61, 61, 61],
     [61, 1, 60, 60, 61, 61, 61, 62],
     [536, 536, 61, 61, 61, 61, 61, 61],
     [1, 60, 60, 61, 61, 61, 62, 537],
     [537, 61, 61, 61, 61, 61, 61, 1],
     [60, 60, 61, 61, 61, 62, 538, 538],
     [61, 61, 61, 61, 61, 61, 1, 60],
     [60, 61, 61, 61, 62, 539, 539, 61],
     [61, 61, 61, 61, 61, 1, 60, 60],
     [61, 61, 61, 62, 540, 540, 61, 61],
     [61, 61, 61, 61, 1, 60, 60, 61],
     [61, 61, 62, 541, 541, 61, 61, 61],
     [61, 61, 61, 1, 60, 60, 61, 61],
     [61, 62, 542, 542, 61, 61, 61, 61],
     [61, 61, 1, 543, 543, 61, 61, 61],
     [544, 61, 61, 61, 61, 61, 61, 1],
     [545, 545, 546, 1, 546, 547, 546, 548],
     [548, 548, 548, 548, 548, 548, 548, 548],
     [1, 549, 1, 550, 550, 1, 550, 550],
     [548, 548, 548, 548, 548, 548, 548, 548],
     [548, 1, 551, 552, 551, 553, 553, 553],
     [554, 553, 553, 553, 553, 553, 1, 555],
     [556, 555, 557, 1, 558, 1, 559, 559],
     [1, 559, 559, 557, 1, 557, 560, 557],
     [561, 561, 561, 561, 561, 561, 561, 561],
     [561, 1, 562, 1, 563, 563, 1, 563],
     [563, 561, 561, 561, 561, 561, 561, 561],
     [561, 561, 1, 564, 1, 559, 46, 559],
     [47, 47, 47, 48, 49, 50, 51, 52],
     [53, 54, 55, 56, 57, 58, 48, 49],
     [50, 51, 52, 53, 54, 55, 56, 57],
     [58, 47, 47, 47, 47, 47, 47, 1],
     [60, 60, 61, 61, 61, 62, 565, 566],
     [565, 566, 61, 61, 61, 61, 61, 61],
     [1, 60, 60, 61, 61, 61, 62, 567],
     [567, 61, 61, 61, 61, 61, 61, 1],
     [60, 60, 61, 61, 61, 62, 568, 568],
     [61, 61, 61, 61, 61, 61, 1, 60],
     [60, 61, 61, 61, 62, 569, 569, 61],
     [61, 61, 61, 61, 61, 1, 60, 60]]"

definition smp_indicies_4 :: "int list list" where
  "smp_indicies_4 =
    [[61, 61, 61, 62, 570, 570, 61, 61],
     [61, 61, 61, 61, 1, 60, 60, 61],
     [61, 61, 62, 571, 571, 61, 61, 61],
     [61, 61, 61, 1, 572, 572, 61, 61],
     [61, 573, 61, 61, 61, 61, 61, 61],
     [1, 574, 574, 575, 1, 575, 576, 575],
     [577, 577, 577, 577, 577, 577, 577, 577],
     [577, 1, 578, 1, 579, 579, 1, 579],
     [579, 577, 577, 577, 577, 577, 577, 577],
     [577, 577, 1, 580, 581, 580, 582, 582],
     [582, 583, 582, 582, 582, 582, 582, 1],
     [584, 585, 584, 586, 1, 587, 1, 588],
     [588, 1, 588, 588, 586, 1, 586, 589],
     [586, 590, 590, 590, 590, 590, 590, 590],
     [590, 590, 1, 591, 1, 592, 592, 1],
     [592, 592, 590, 590, 590, 590, 590, 590],
     [590, 590, 590, 1, 593, 1, 588, 46],
     [588, 47, 47, 47, 48, 49, 50, 51],
     [52, 53, 54, 55, 56, 57, 58, 48],
     [49, 50, 51, 52, 53, 54, 55, 56],
     [57, 58, 47, 47, 47, 47, 47, 47],
     [1, 60, 60, 61, 61, 61, 62, 594],
     [594, 61, 61, 61, 61, 61, 61, 1],
     [60, 60, 61, 61, 61, 62, 595, 595],
     [61, 61, 61, 61, 61, 61, 1, 60],
     [60, 61, 61, 61, 62, 596, 596, 61],
     [61, 61, 61, 61, 61, 1, 60, 60],
     [61, 61, 61, 62, 597, 597, 61, 61],
     [61, 61, 61, 61, 1, 60, 60, 61],
     [61, 61, 62, 598, 598, 61, 61, 61],
     [61, 61, 61, 1, 60, 60, 61, 61],
     [61, 62, 599, 599, 61, 61, 61, 61],
     [61, 61, 1, 60, 60, 61, 61, 61],
     [62, 600, 600, 61, 61, 61, 61, 61],
     [61, 1, 60, 60, 61, 61, 61, 62],
     [601, 601, 61, 61, 61, 61, 61, 61],
     [1, 602, 602, 61, 61, 61, 603, 604],
     [604, 61, 61, 61, 61, 61, 61, 1],
     [605, 605, 606, 1, 607, 608, 607, 609],
     [610, 609, 609, 611, 613, 614, 613, 614],
     [609, 609, 609, 609, 612, 609, 612, 1],
     [615, 1, 616, 616, 1, 617, 618, 617],
     [609, 610, 609, 609, 611, 613, 614, 613],
     [614, 609, 609, 609, 609, 612, 609, 612],
     [1, 619, 1, 620, 620, 1, 620, 620],
     [621, 1, 623, 624, 623, 624, 622, 622],
     [1, 625, 626, 625, 625, 625, 625, 1],
     [627, 628, 629, 630, 631, 632, 631, 633],
     [627, 627, 627, 627, 627, 1, 627, 628],
     [629, 634, 632, 635, 627, 627, 627, 627],
     [627, 1, 628, 636, 637, 628, 638, 628],
     [628, 628, 628, 628, 1, 639, 639, 639],
     [1, 628, 628, 628, 1, 637, 640, 637],
     [638, 637, 637, 637, 637, 637, 637, 1],
     [641, 641, 641, 1, 637, 637, 637, 1],
     [642, 643, 644, 633, 645, 646, 646, 1],
     [647, 648, 647, 649, 649, 649, 1, 647],
     [647, 649, 649, 649, 1, 647, 650, 647],
     [649, 649, 649, 1, 649, 646, 646, 1],
     [651, 652, 653, 632, 631, 651, 646, 646],
     [646, 1, 651, 651, 646, 646, 646, 1],
     [653, 632, 631, 649, 646, 646, 1, 654],
     [656, 655, 657, 1, 658, 659, 1, 660],
     [661, 1, 662, 1, 632, 631, 1, 663],
     [664, 663, 665, 1, 666, 1, 667, 46],
     [667, 47, 47, 47, 48, 49, 50, 51],
     [52, 53, 54, 55, 56, 57, 58, 48],
     [49, 50, 51, 52, 53, 54, 55, 56],
     [57, 58, 47, 47, 47, 47, 47, 47],
     [1, 667, 668, 667, 665, 1, 669, 1],
     [670, 46, 670, 47, 47, 47, 48, 49],
     [50, 51, 52, 53, 54, 55, 56, 57],
     [58, 48, 49, 50, 51, 52, 53, 54],
     [55, 56, 57, 58, 47, 47, 47, 47],
     [47, 47, 1, 670, 670, 665, 1, 665],
     [671, 665, 672, 672, 672, 673, 673, 672],
     [672, 672, 672, 672, 672, 1, 674, 1],
     [675, 675, 1, 675, 675, 672, 672, 672],
     [673, 673, 672, 672, 672, 672, 672, 672],
     [1, 676, 677, 676, 672, 672, 672, 665],
     [678, 672, 672, 672, 672, 672, 672, 1],
     [676, 679, 676, 665, 678, 1, 680, 1],
     [681, 681, 1, 681, 681, 665, 678, 1],
     [678, 682, 678, 683, 684, 683, 683, 685],
     [683, 683, 683, 683, 683, 683, 1, 686],
     [1, 687, 687, 1, 687, 687, 683, 684],
     [683, 683, 685, 683, 683, 683, 683, 683],
     [683, 1, 688, 668, 688, 683, 683, 683],
     [665, 683, 683, 683, 683, 683, 683, 1],
     [688, 689, 688, 665, 1, 690, 1, 670],
     [670, 1, 684, 696, 697, 698, 691, 692],
     [693, 694, 695, 684, 1, 684, 1, 691],
     [1, 692, 1, 693, 1, 694, 1, 699],
     [1, 684, 684, 1, 688, 668, 688, 665],
     [1, 684, 684, 684, 1, 701, 700, 700],
     [700, 1, 703, 702, 702, 702, 1, 703],
     [704, 704, 704, 1, 703, 705, 705, 705],
     [1, 703, 1, 707, 706, 706, 706, 1],
     [709, 708, 708, 708, 1, 709, 710, 710],
     [710, 1, 709, 711, 711, 711, 1, 709],
     [1, 713, 712, 712, 712, 1, 715, 714],
     [714, 714, 1, 715, 716, 716, 716, 1],
     [715, 717, 717, 717, 1, 715, 1, 719],
     [718, 718, 718, 1, 721, 720, 720, 720],
     [1, 721, 722, 722, 722, 1, 721, 723],
     [723, 723, 1, 721, 1, 725, 724, 724],
     [724, 1, 727, 726, 726, 726, 1, 727],
     [728, 728, 728, 1, 727, 729, 729, 729],
     [1, 727, 1, 731, 730, 730, 730, 1],
     [733, 732, 732, 732, 1, 733, 734, 734],
     [734, 1, 733, 735, 735, 735, 1, 733],
     [1, 736, 737, 738, 740, 739, 741, 741],
     [1, 742, 744, 743, 743, 743, 1, 745],
     [746, 747, 748, 1, 749, 1, 750, 751],
     [752, 753, 1, 754, 1, 755, 756, 757],
     [758, 1, 697, 1, 697, 758, 1, 697],
     [755, 1, 759, 697, 758, 755, 1, 697],
     [755, 1, 754, 753, 1, 754, 750, 1],
     [754, 760, 753, 750, 1, 754, 750, 1],
     [749, 748, 1, 749, 745, 1, 749, 761],
     [748, 745, 1, 749, 745, 1, 744, 762],
     [762, 762, 1, 744, 763, 763, 763, 1],
     [744, 1, 755, 764, 764, 764, 1, 697],
     [765, 765, 765, 1, 697, 766, 766, 766],
     [1, 697, 755, 755, 755, 1, 742, 744],
     [767, 743, 743, 1, 742, 744, 768, 762],
     [762, 1, 742, 744, 763, 763, 763, 1],
     [742, 769, 744, 767, 770, 743, 743, 1],
     [742, 744, 768, 762, 762, 762, 1, 742],
     [744, 762, 762, 762, 1, 742, 744, 770],
     [743, 743, 1, 697, 764, 764, 764, 1],
     [744, 743, 743, 743, 1, 771, 772, 773],
     [697, 774, 775, 775, 1, 742, 777, 697],
     [776, 776, 776, 1, 777, 697, 778, 778],
     [778, 1, 777, 697, 779, 779, 779, 1],
     [777, 697, 1, 764, 764, 764, 1, 742],
     [777, 697, 780, 776, 776, 1, 742, 777],
     [697, 781, 778, 778, 1, 742, 777, 697],
     [779, 779, 779, 1, 742, 782, 777, 697],
     [780, 783, 776, 776, 1, 742, 777, 697],
     [781, 778, 778, 778, 1, 742, 777, 697],
     [778, 778, 778, 1, 742, 777, 697, 783],
     [776, 776, 1, 777, 697, 776, 776, 776],
     [1, 784, 785, 786, 697, 787, 788, 788],
     [1, 742, 790, 697, 789, 789, 789, 1],
     [790, 697, 791, 791, 791, 1, 790, 697],
     [792, 792, 792, 1, 790, 697, 1, 771],
     [772, 773, 774, 775, 775, 1, 742, 790],
     [697, 793, 789, 789, 1, 742, 790, 697],
     [794, 791, 791, 1, 742, 790, 697, 792]]"

definition smp_indicies_5 :: "int list list" where
  "smp_indicies_5 =
    [[792, 792, 1, 742, 795, 790, 697, 793],
     [796, 789, 789, 1, 742, 790, 697, 794],
     [791, 791, 791, 1, 742, 790, 697, 791],
     [791, 791, 1, 742, 790, 697, 796, 789],
     [789, 1, 790, 697, 789, 789, 789, 1],
     [797, 798, 799, 697, 800, 801, 801, 1],
     [742, 803, 697, 802, 802, 802, 1, 803],
     [697, 804, 804, 804, 1, 803, 697, 805],
     [805, 805, 1, 803, 697, 1, 784, 785],
     [786, 787, 788, 788, 1, 742, 803, 697],
     [806, 802, 802, 1, 742, 803, 697, 807],
     [804, 804, 1, 742, 803, 697, 805, 805],
     [805, 1, 742, 808, 803, 697, 806, 809],
     [802, 802, 1, 742, 803, 697, 807, 804],
     [804, 804, 1, 742, 803, 697, 804, 804],
     [804, 1, 742, 803, 697, 809, 802, 802],
     [1, 803, 697, 802, 802, 802, 1, 810],
     [811, 812, 697, 813, 814, 814, 1, 742],
     [816, 697, 815, 815, 815, 1, 816, 697],
     [817, 817, 817, 1, 816, 697, 818, 818],
     [818, 1, 816, 697, 1, 797, 798, 799],
     [800, 801, 801, 1, 742, 816, 697, 819],
     [815, 815, 1, 742, 816, 697, 820, 817],
     [817, 1, 742, 816, 697, 818, 818, 818],
     [1, 742, 821, 816, 697, 819, 822, 815],
     [815, 1, 742, 816, 697, 820, 817, 817],
     [817, 1, 742, 816, 697, 817, 817, 817],
     [1, 742, 816, 697, 822, 815, 815, 1],
     [816, 697, 815, 815, 815, 1, 823, 824],
     [825, 697, 826, 827, 827, 1, 742, 829],
     [697, 828, 828, 828, 1, 829, 697, 830],
     [830, 830, 1, 829, 697, 831, 831, 831],
     [1, 829, 697, 1, 810, 811, 812, 813],
     [814, 814, 1, 742, 829, 697, 832, 828],
     [828, 1, 742, 829, 697, 833, 830, 830],
     [1, 742, 829, 697, 831, 831, 831, 1],
     [742, 834, 829, 697, 832, 835, 828, 828],
     [1, 742, 829, 697, 833, 830, 830, 830],
     [1, 742, 829, 697, 830, 830, 830, 1],
     [742, 829, 697, 835, 828, 828, 1, 829],
     [697, 828, 828, 828, 1, 836, 1, 837],
     [838, 839, 697, 840, 841, 841, 1, 742],
     [843, 697, 842, 842, 842, 1, 843, 697],
     [844, 844, 844, 1, 843, 697, 845, 845],
     [845, 1, 843, 697, 1, 823, 824, 825],
     [826, 827, 827, 1, 742, 843, 697, 846],
     [842, 842, 1, 742, 843, 697, 847, 844],
     [844, 1, 742, 843, 697, 845, 845, 845],
     [1, 742, 848, 843, 697, 846, 849, 842],
     [842, 1, 742, 843, 697, 847, 844, 844],
     [844, 1, 742, 843, 697, 844, 844, 844],
     [1, 742, 843, 697, 849, 842, 842, 1],
     [843, 697, 842, 842, 842, 1, 850, 1],
     [681, 46, 681, 47, 47, 47, 48, 49],
     [50, 51, 52, 53, 54, 55, 56, 57],
     [58, 48, 49, 50, 51, 52, 53, 54],
     [55, 56, 57, 58, 47, 47, 47, 47],
     [47, 47, 1, 851, 851, 61, 61, 61],
     [852, 853, 853, 61, 61, 61, 61, 61],
     [61, 1, 854, 854, 855, 1, 855, 856],
     [855, 857, 857, 857, 857, 857, 857, 857],
     [857, 857, 1, 858, 1, 859, 859, 1],
     [859, 859, 857, 857, 857, 857, 857, 857],
     [857, 857, 857, 1, 860, 861, 860, 862],
     [862, 862, 863, 862, 862, 862, 862, 862],
     [1, 860, 861, 860, 863, 1, 864, 1],
     [865, 865, 1, 865, 865, 863, 1, 863],
     [866, 863, 867, 867, 867, 867, 867, 867],
     [867, 867, 867, 1, 868, 1, 869, 869],
     [1, 869, 869, 867, 867, 867, 867, 867],
     [867, 867, 867, 867, 1, 870, 871, 870],
     [867, 867, 867, 872, 867, 867, 867, 867],
     [867, 1, 870, 871, 870, 872, 1, 873],
     [1, 874, 874, 1, 874, 874, 872, 1],
     [872, 875, 872, 876, 876, 876, 876, 876],
     [876, 876, 876, 876, 1, 877, 1, 878],
     [878, 1, 878, 878, 876, 876, 876, 876],
     [876, 876, 876, 876, 876, 1, 879, 880],
     [879, 876, 876, 876, 876, 876, 876, 876],
     [876, 876, 1, 879, 880, 879, 881, 882],
     [883, 886, 884, 885, 885, 1, 887, 1],
     [888, 888, 1, 888, 888, 881, 882, 883],
     [886, 884, 885, 885, 1, 889, 890, 889],
     [891, 891, 891, 1, 889, 889, 891, 891],
     [891, 1, 889, 892, 889, 891, 891, 891],
     [1, 891, 893, 893, 1, 894, 895, 894],
     [896, 897, 898, 899, 900, 897, 893, 893],
     [893, 1, 901, 902, 901, 903, 904, 905],
     [1, 906, 1, 907, 907, 1, 907, 907],
     [903, 904, 905, 1, 903, 908, 903, 909],
     [909, 909, 909, 909, 909, 909, 909, 909],
     [1, 910, 1, 911, 911, 1, 911, 911],
     [909, 909, 909, 909, 909, 909, 909, 909],
     [909, 1, 904, 912, 904, 913, 915, 914],
     [916, 1, 917, 1, 918, 918, 1, 918],
     [918, 913, 915, 914, 916, 1, 919, 920],
     [1, 921, 922, 1, 923, 1, 924, 925],
     [924, 926, 927, 1, 928, 929, 928, 903],
     [905, 1, 930, 1, 931, 931, 1, 931],
     [931, 903, 905, 1, 905, 932, 905, 933],
     [933, 933, 934, 935, 936, 934, 935, 936],
     [933, 933, 933, 933, 933, 933, 1, 937],
     [1, 938, 938, 1, 938, 938, 933, 933],
     [933, 934, 935, 936, 934, 935, 936, 933],
     [933, 933, 933, 933, 933, 1, 939, 940],
     [939, 941, 941, 941, 942, 943, 944, 941],
     [941, 941, 941, 941, 1, 945, 946, 945],
     [903, 905, 947, 1, 948, 1, 949, 949],
     [1, 949, 949, 903, 905, 947, 1, 947],
     [950, 947, 951, 952, 951, 951, 953, 951],
     [951, 951, 951, 951, 951, 1, 954, 1],
     [955, 955, 1, 955, 955, 951, 952, 951],
     [951, 953, 951, 951, 951, 951, 951, 951],
     [1, 956, 957, 956, 958, 958, 958, 959],
     [960, 958, 958, 958, 958, 958, 1, 961],
     [1, 931, 46, 931, 47, 47, 47, 48],
     [49, 50, 51, 52, 53, 54, 55, 56],
     [57, 58, 48, 49, 50, 51, 52, 53],
     [54, 55, 56, 57, 58, 47, 47, 47],
     [47, 47, 47, 1, 967, 968, 969, 970],
     [962, 963, 964, 965, 966, 967, 1, 967],
     [1, 962, 1, 963, 1, 964, 1, 965],
     [1, 971, 1, 967, 967, 1, 956, 957],
     [956, 959, 960, 1, 967, 967, 967, 1],
     [973, 972, 972, 972, 1, 975, 974, 974],
     [974, 1, 975, 976, 976, 976, 1, 975],
     [977, 977, 977, 1, 975, 1, 979, 978],
     [978, 978, 1, 981, 980, 980, 980, 1],
     [981, 982, 982, 982, 1, 981, 983, 983],
     [983, 1, 981, 1, 985, 984, 984, 984],
     [1, 987, 986, 986, 986, 1, 987, 988],
     [988, 988, 1, 987, 989, 989, 989, 1],
     [987, 1, 991, 990, 990, 990, 1, 993],
     [992, 992, 992, 1, 993, 994, 994, 994],
     [1, 993, 995, 995, 995, 1, 993, 1],
     [997, 996, 996, 996, 1, 999, 998, 998],
     [998, 1, 999, 1000, 1000, 1000, 1, 999],
     [1001, 1001, 1001, 1, 999, 1, 1003, 1002],
     [1002, 1002, 1, 1005, 1004, 1004, 1004, 1],
     [1005, 1006, 1006, 1006, 1, 1005, 1007, 1007],
     [1007, 1, 1005, 1, 1008, 1009, 1010, 1012],
     [1011, 1013, 1013, 1, 1014, 1016, 1015, 1015],
     [1015, 1, 1017, 1018, 1019, 1020, 1, 1021],
     [1, 1022, 1023, 1024, 1025, 1, 1026, 1],
     [1027, 1028, 1029, 1030, 1, 969, 1, 969],
     [1030, 1, 969, 1027, 1, 1031, 969, 1030],
     [1027, 1, 969, 1027, 1, 1026, 1025, 1],
     [1026, 1022, 1, 1026, 1032, 1025, 1022, 1],
     [1026, 1022, 1, 1021, 1020, 1, 1021, 1017],
     [1, 1021, 1033, 1020, 1017, 1, 1021, 1017]]"

definition smp_indicies_6 :: "int list list" where
  "smp_indicies_6 =
    [[1, 1016, 1034, 1034, 1034, 1, 1016, 1035],
     [1035, 1035, 1, 1016, 1, 1027, 1036, 1036],
     [1036, 1, 969, 1037, 1037, 1037, 1, 969],
     [1038, 1038, 1038, 1, 969, 1027, 1027, 1027],
     [1, 1014, 1016, 1039, 1015, 1015, 1, 1014],
     [1016, 1040, 1034, 1034, 1, 1014, 1016, 1035],
     [1035, 1035, 1, 1014, 1041, 1016, 1039, 1042],
     [1015, 1015, 1, 1014, 1016, 1040, 1034, 1034],
     [1034, 1, 1014, 1016, 1034, 1034, 1034, 1],
     [1014, 1016, 1042, 1015, 1015, 1, 969, 1036],
     [1036, 1036, 1, 1016, 1015, 1015, 1015, 1],
     [1043, 1044, 1045, 969, 1046, 1047, 1047, 1],
     [1014, 1049, 969, 1048, 1048, 1048, 1, 1049],
     [969, 1050, 1050, 1050, 1, 1049, 969, 1051],
     [1051, 1051, 1, 1049, 969, 1, 1036, 1036],
     [1036, 1, 1014, 1049, 969, 1052, 1048, 1048],
     [1, 1014, 1049, 969, 1053, 1050, 1050, 1],
     [1014, 1049, 969, 1051, 1051, 1051, 1, 1014],
     [1054, 1049, 969, 1052, 1055, 1048, 1048, 1],
     [1014, 1049, 969, 1053, 1050, 1050, 1050, 1],
     [1014, 1049, 969, 1050, 1050, 1050, 1, 1014],
     [1049, 969, 1055, 1048, 1048, 1, 1049, 969],
     [1048, 1048, 1048, 1, 1056, 1057, 1058, 969],
     [1059, 1060, 1060, 1, 1014, 1062, 969, 1061],
     [1061, 1061, 1, 1062, 969, 1063, 1063, 1063],
     [1, 1062, 969, 1064, 1064, 1064, 1, 1062],
     [969, 1, 1043, 1044, 1045, 1046, 1047, 1047],
     [1, 1014, 1062, 969, 1065, 1061, 1061, 1],
     [1014, 1062, 969, 1066, 1063, 1063, 1, 1014],
     [1062, 969, 1064, 1064, 1064, 1, 1014, 1067],
     [1062, 969, 1065, 1068, 1061, 1061, 1, 1014],
     [1062, 969, 1066, 1063, 1063, 1063, 1, 1014],
     [1062, 969, 1063, 1063, 1063, 1, 1014, 1062],
     [969, 1068, 1061, 1061, 1, 1062, 969, 1061],
     [1061, 1061, 1, 1069, 1070, 1071, 969, 1072],
     [1073, 1073, 1, 1014, 1075, 969, 1074, 1074],
     [1074, 1, 1075, 969, 1076, 1076, 1076, 1],
     [1075, 969, 1077, 1077, 1077, 1, 1075, 969],
     [1, 1056, 1057, 1058, 1059, 1060, 1060, 1],
     [1014, 1075, 969, 1078, 1074, 1074, 1, 1014],
     [1075, 969, 1079, 1076, 1076, 1, 1014, 1075],
     [969, 1077, 1077, 1077, 1, 1014, 1080, 1075],
     [969, 1078, 1081, 1074, 1074, 1, 1014, 1075],
     [969, 1079, 1076, 1076, 1076, 1, 1014, 1075],
     [969, 1076, 1076, 1076, 1, 1014, 1075, 969],
     [1081, 1074, 1074, 1, 1075, 969, 1074, 1074],
     [1074, 1, 1082, 1083, 1084, 969, 1085, 1086],
     [1086, 1, 1014, 1088, 969, 1087, 1087, 1087],
     [1, 1088, 969, 1089, 1089, 1089, 1, 1088],
     [969, 1090, 1090, 1090, 1, 1088, 969, 1],
     [1069, 1070, 1071, 1072, 1073, 1073, 1, 1014],
     [1088, 969, 1091, 1087, 1087, 1, 1014, 1088],
     [969, 1092, 1089, 1089, 1, 1014, 1088, 969],
     [1090, 1090, 1090, 1, 1014, 1093, 1088, 969],
     [1091, 1094, 1087, 1087, 1, 1014, 1088, 969],
     [1092, 1089, 1089, 1089, 1, 1014, 1088, 969],
     [1089, 1089, 1089, 1, 1014, 1088, 969, 1094],
     [1087, 1087, 1, 1088, 969, 1087, 1087, 1087],
     [1, 1095, 1096, 1097, 969, 1098, 1099, 1099],
     [1, 1014, 1101, 969, 1100, 1100, 1100, 1],
     [1101, 969, 1102, 1102, 1102, 1, 1101, 969],
     [1103, 1103, 1103, 1, 1101, 969, 1, 1082],
     [1083, 1084, 1085, 1086, 1086, 1, 1014, 1101],
     [969, 1104, 1100, 1100, 1, 1014, 1101, 969],
     [1105, 1102, 1102, 1, 1014, 1101, 969, 1103],
     [1103, 1103, 1, 1014, 1106, 1101, 969, 1104],
     [1107, 1100, 1100, 1, 1014, 1101, 969, 1105],
     [1102, 1102, 1102, 1, 1014, 1101, 969, 1102],
     [1102, 1102, 1, 1014, 1101, 969, 1107, 1100],
     [1100, 1, 1101, 969, 1100, 1100, 1100, 1],
     [1108, 1, 1109, 1110, 1111, 969, 1112, 1113],
     [1113, 1, 1014, 1115, 969, 1114, 1114, 1114],
     [1, 1115, 969, 1116, 1116, 1116, 1, 1115],
     [969, 1117, 1117, 1117, 1, 1115, 969, 1],
     [1095, 1096, 1097, 1098, 1099, 1099, 1, 1014],
     [1115, 969, 1118, 1114, 1114, 1, 1014, 1115],
     [969, 1119, 1116, 1116, 1, 1014, 1115, 969],
     [1117, 1117, 1117, 1, 1014, 1120, 1115, 969],
     [1118, 1121, 1114, 1114, 1, 1014, 1115, 969],
     [1119, 1116, 1116, 1116, 1, 1014, 1115, 969],
     [1116, 1116, 1116, 1, 1014, 1115, 969, 1121],
     [1114, 1114, 1, 1115, 969, 1114, 1114, 1114],
     [1, 1122, 1, 949, 46, 949, 47, 47],
     [47, 48, 49, 50, 51, 52, 53, 54],
     [55, 56, 57, 58, 48, 49, 50, 51],
     [52, 53, 54, 55, 56, 57, 58, 47],
     [47, 47, 47, 47, 47, 1, 939, 940],
     [939, 941, 941, 941, 942, 943, 944, 1123],
     [1123, 941, 941, 941, 941, 941, 1, 939],
     [940, 939, 941, 941, 941, 942, 943, 944],
     [1124, 1124, 941, 941, 941, 941, 941, 1],
     [939, 940, 939, 941, 941, 941, 942, 943],
     [944, 1125, 1125, 941, 941, 941, 941, 941],
     [1, 939, 940, 939, 941, 941, 941, 942],
     [943, 944, 1126, 1126, 941, 941, 941, 941],
     [941, 1, 1127, 1128, 1127, 941, 941, 941],
     [1129, 1130, 1131, 941, 941, 941, 941, 941],
     [1, 1132, 1133, 1132, 903, 905, 1134, 1],
     [1135, 1, 1136, 1136, 1, 1136, 1136, 903],
     [905, 1134, 1, 1134, 1137, 1134, 1138, 1138],
     [1138, 1138, 1138, 1138, 1138, 1138, 1138, 1],
     [1139, 1, 1140, 1140, 1, 1140, 1140, 1138],
     [1138, 1138, 1138, 1138, 1138, 1138, 1138, 1138],
     [1, 1141, 1142, 1141, 1138, 1138, 1138, 1143],
     [905, 1138, 1138, 1138, 1138, 1138, 1, 1144],
     [1, 1136, 46, 1136, 47, 47, 47, 48],
     [49, 50, 51, 52, 53, 54, 55, 56],
     [57, 58, 48, 49, 50, 51, 52, 53],
     [54, 55, 56, 57, 58, 47, 47, 47],
     [47, 47, 47, 1, 939, 940, 939, 941],
     [941, 941, 942, 943, 944, 1145, 1145, 941],
     [941, 941, 941, 941, 1, 939, 940, 939],
     [941, 941, 941, 942, 943, 944, 1146, 1146],
     [941, 941, 941, 941, 941, 1, 939, 940],
     [939, 941, 941, 941, 942, 943, 944, 1147],
     [1147, 941, 941, 941, 941, 941, 1, 939],
     [940, 939, 941, 941, 941, 942, 943, 944],
     [1148, 1148, 941, 941, 941, 941, 941, 1],
     [939, 940, 939, 941, 941, 941, 942, 943],
     [944, 1149, 1149, 941, 941, 941, 941, 941],
     [1, 1150, 1151, 1150, 941, 941, 941, 1152],
     [941, 941, 941, 941, 941, 941, 1, 1150],
     [1151, 1150, 1152, 1, 1153, 1, 1154, 1154],
     [1, 1154, 1154, 1152, 1, 1152, 1155, 1152],
     [1156, 1156, 1156, 1157, 1156, 1156, 1156, 1156],
     [1156, 1156, 1, 1158, 1, 1159, 1159, 1],
     [1159, 1159, 1156, 1156, 1156, 1157, 1156, 1156],
     [1156, 1156, 1156, 1156, 1, 1160, 1161, 1160],
     [1162, 1162, 1162, 1163, 1164, 1162, 1162, 1162],
     [1162, 1162, 1, 1160, 1161, 1160, 1162, 1162],
     [1162, 1163, 1165, 1164, 1162, 1162, 1162, 1162],
     [1162, 1, 1160, 1161, 1160, 1162, 1162, 1162],
     [1163, 1164, 1166, 1162, 1162, 1162, 1162, 1162],
     [1, 1160, 1161, 1160, 1162, 1162, 1162, 1163],
     [1164, 1167, 1162, 1162, 1162, 1162, 1162, 1],
     [1160, 1161, 1160, 1162, 1162, 1162, 1163, 1168],
     [1164, 1162, 1162, 1162, 1162, 1162, 1, 1160],
     [1161, 1160, 1162, 1162, 1162, 1163, 1164, 1169],
     [1162, 1162, 1162, 1162, 1162, 1, 1160, 1161],
     [1160, 1162, 1162, 1162, 1163, 1164, 1170, 1162],
     [1162, 1162, 1162, 1162, 1, 1160, 1161, 1160],
     [1171, 1171, 1171, 1163, 1164, 1171, 1171, 1171],
     [1171, 1171, 1, 939, 940, 939, 941, 941],
     [941, 942, 943, 944, 1172, 1173, 1172, 1173],
     [941, 941, 941, 941, 941, 1, 939, 940],
     [939, 941, 941, 941, 942, 943, 944, 1174],
     [1174, 941, 941, 941, 941, 941, 1, 939],
     [940, 939, 941, 941, 941, 942, 943, 944],
     [1175, 1175, 941, 941, 941, 941, 941, 1],
     [939, 940, 939, 941, 941, 941, 942, 943]]"

definition smp_indicies_7 :: "int list list" where
  "smp_indicies_7 =
    [[944, 1176, 1176, 941, 941, 941, 941, 941],
     [1, 939, 940, 939, 941, 941, 941, 942],
     [943, 944, 1177, 1177, 941, 941, 941, 941],
     [941, 1, 939, 940, 939, 941, 941, 941],
     [942, 943, 944, 1178, 1178, 941, 941, 941],
     [941, 941, 1, 939, 940, 939, 941, 941],
     [941, 942, 943, 944, 1179, 1179, 941, 941],
     [941, 941, 941, 1, 1180, 1181, 1180, 941],
     [941, 941, 1182, 941, 941, 941, 941, 941],
     [941, 1, 1180, 1181, 1180, 1182, 1, 1183],
     [1, 1184, 1184, 1, 1184, 1184, 1182, 1],
     [1182, 1185, 1182, 1186, 1187, 1188, 1190, 1189],
     [1191, 1191, 1, 1192, 1, 1193, 1193, 1],
     [1193, 1193, 1186, 1187, 1188, 1190, 1189, 1191],
     [1191, 1, 1194, 1196, 1195, 1195, 1195, 1],
     [1197, 1198, 1199, 1200, 1, 1201, 1, 1202],
     [1203, 1204, 1205, 1, 1206, 1, 1207, 1208],
     [1209, 1210, 1, 1211, 1212, 1211, 1213, 1214],
     [1, 1211, 1212, 1211, 1213, 1214, 1210, 1],
     [1211, 1212, 1211, 1213, 1214, 1207, 1, 1211],
     [1212, 1211, 1213, 1215, 1214, 1210, 1207, 1],
     [1211, 1212, 1211, 1213, 1214, 1207, 1, 1206],
     [1205, 1, 1206, 1202, 1, 1206, 1216, 1205],
     [1202, 1, 1206, 1202, 1, 1201, 1200, 1],
     [1201, 1197, 1, 1201, 1217, 1200, 1197, 1],
     [1201, 1197, 1, 1196, 1218, 1218, 1218, 1],
     [1196, 1219, 1219, 1219, 1, 1196, 1, 1221],
     [1220, 1220, 1220, 1, 1223, 1222, 1222, 1222],
     [1, 1223, 1224, 1224, 1224, 1, 1223, 1225],
     [1225, 1225, 1, 1223, 1, 1227, 1226, 1226],
     [1226, 1, 1229, 1228, 1228, 1228, 1, 1229],
     [1230, 1230, 1230, 1, 1229, 1231, 1231, 1231],
     [1, 1229, 1, 1233, 1232, 1232, 1232, 1],
     [1235, 1234, 1234, 1234, 1, 1235, 1236, 1236],
     [1236, 1, 1235, 1237, 1237, 1237, 1, 1235],
     [1, 1239, 1238, 1238, 1238, 1, 1241, 1240],
     [1240, 1240, 1, 1241, 1242, 1242, 1242, 1],
     [1241, 1243, 1243, 1243, 1, 1241, 1, 1245],
     [1244, 1244, 1244, 1, 1247, 1246, 1246, 1246],
     [1, 1247, 1248, 1248, 1248, 1, 1247, 1249],
     [1249, 1249, 1, 1247, 1, 1250, 1251, 1252],
     [1254, 1253, 1255, 1255, 1, 1194, 1257, 1256],
     [1256, 1256, 1, 1257, 1258, 1258, 1258, 1],
     [1257, 1259, 1259, 1259, 1, 1257, 1, 1207],
     [1260, 1260, 1260, 1, 1211, 1212, 1211, 1213],
     [1214, 1261, 1261, 1261, 1, 1211, 1212, 1211],
     [1213, 1214, 1262, 1262, 1262, 1, 1211, 1212],
     [1211, 1213, 1214, 1207, 1207, 1207, 1, 1194],
     [1257, 1263, 1256, 1256, 1, 1194, 1257, 1264],
     [1258, 1258, 1, 1194, 1257, 1259, 1259, 1259],
     [1, 1194, 1265, 1257, 1263, 1266, 1256, 1256],
     [1, 1194, 1257, 1264, 1258, 1258, 1258, 1],
     [1194, 1257, 1258, 1258, 1258, 1, 1194, 1257],
     [1266, 1256, 1256, 1, 1211, 1212, 1211, 1213],
     [1214, 1260, 1260, 1260, 1, 1257, 1256, 1256],
     [1256, 1, 1211, 1212, 1211, 1213, 1267, 1268],
     [1269, 1214, 1270, 1271, 1271, 1, 1211, 1212],
     [1211, 1213, 1194, 1273, 1214, 1272, 1272, 1272],
     [1, 1211, 1212, 1211, 1213, 1273, 1214, 1274],
     [1274, 1274, 1, 1211, 1212, 1211, 1213, 1273],
     [1214, 1275, 1275, 1275, 1, 1211, 1212, 1211],
     [1213, 1273, 1214, 1, 1260, 1260, 1260, 1],
     [1211, 1212, 1211, 1213, 1194, 1273, 1214, 1276],
     [1272, 1272, 1, 1211, 1212, 1211, 1213, 1194],
     [1273, 1214, 1277, 1274, 1274, 1, 1211, 1212],
     [1211, 1213, 1194, 1273, 1214, 1275, 1275, 1275],
     [1, 1211, 1212, 1211, 1213, 1194, 1278, 1273],
     [1214, 1276, 1279, 1272, 1272, 1, 1211, 1212],
     [1211, 1213, 1194, 1273, 1214, 1277, 1274, 1274],
     [1274, 1, 1211, 1212, 1211, 1213, 1194, 1273],
     [1214, 1274, 1274, 1274, 1, 1211, 1212, 1211],
     [1213, 1194, 1273, 1214, 1279, 1272, 1272, 1],
     [1211, 1212, 1211, 1213, 1273, 1214, 1272, 1272],
     [1272, 1, 1211, 1212, 1211, 1213, 1280, 1281],
     [1282, 1214, 1283, 1284, 1284, 1, 1211, 1212],
     [1211, 1213, 1194, 1286, 1214, 1285, 1285, 1285],
     [1, 1211, 1212, 1211, 1213, 1286, 1214, 1287],
     [1287, 1287, 1, 1211, 1212, 1211, 1213, 1286],
     [1214, 1288, 1288, 1288, 1, 1211, 1212, 1211],
     [1213, 1286, 1214, 1, 1267, 1268, 1269, 1270],
     [1271, 1271, 1, 1211, 1212, 1211, 1213, 1194],
     [1286, 1214, 1289, 1285, 1285, 1, 1211, 1212],
     [1211, 1213, 1194, 1286, 1214, 1290, 1287, 1287],
     [1, 1211, 1212, 1211, 1213, 1194, 1286, 1214],
     [1288, 1288, 1288, 1, 1211, 1212, 1211, 1213],
     [1194, 1291, 1286, 1214, 1289, 1292, 1285, 1285],
     [1, 1211, 1212, 1211, 1213, 1194, 1286, 1214],
     [1290, 1287, 1287, 1287, 1, 1211, 1212, 1211],
     [1213, 1194, 1286, 1214, 1287, 1287, 1287, 1],
     [1211, 1212, 1211, 1213, 1194, 1286, 1214, 1292],
     [1285, 1285, 1, 1211, 1212, 1211, 1213, 1286],
     [1214, 1285, 1285, 1285, 1, 1211, 1212, 1211],
     [1213, 1293, 1294, 1295, 1214, 1296, 1297, 1297],
     [1, 1211, 1212, 1211, 1213, 1194, 1299, 1214],
     [1298, 1298, 1298, 1, 1211, 1212, 1211, 1213],
     [1299, 1214, 1300, 1300, 1300, 1, 1211, 1212],
     [1211, 1213, 1299, 1214, 1301, 1301, 1301, 1],
     [1211, 1212, 1211, 1213, 1299, 1214, 1, 1280],
     [1281, 1282, 1283, 1284, 1284, 1, 1211, 1212],
     [1211, 1213, 1194, 1299, 1214, 1302, 1298, 1298],
     [1, 1211, 1212, 1211, 1213, 1194, 1299, 1214],
     [1303, 1300, 1300, 1, 1211, 1212, 1211, 1213],
     [1194, 1299, 1214, 1301, 1301, 1301, 1, 1211],
     [1212, 1211, 1213, 1194, 1304, 1299, 1214, 1302],
     [1305, 1298, 1298, 1, 1211, 1212, 1211, 1213],
     [1194, 1299, 1214, 1303, 1300, 1300, 1300, 1],
     [1211, 1212, 1211, 1213, 1194, 1299, 1214, 1300],
     [1300, 1300, 1, 1211, 1212, 1211, 1213, 1194],
     [1299, 1214, 1305, 1298, 1298, 1, 1211, 1212],
     [1211, 1213, 1299, 1214, 1298, 1298, 1298, 1],
     [1211, 1212, 1211, 1213, 1306, 1307, 1308, 1214],
     [1309, 1310, 1310, 1, 1211, 1212, 1211, 1213],
     [1194, 1312, 1214, 1311, 1311, 1311, 1, 1211],
     [1212, 1211, 1213, 1312, 1214, 1313, 1313, 1313],
     [1, 1211, 1212, 1211, 1213, 1312, 1214, 1314],
     [1314, 1314, 1, 1211, 1212, 1211, 1213, 1312],
     [1214, 1, 1293, 1294, 1295, 1296, 1297, 1297],
     [1, 1211, 1212, 1211, 1213, 1194, 1312, 1214],
     [1315, 1311, 1311, 1, 1211, 1212, 1211, 1213],
     [1194, 1312, 1214, 1316, 1313, 1313, 1, 1211],
     [1212, 1211, 1213, 1194, 1312, 1214, 1314, 1314],
     [1314, 1, 1211, 1212, 1211, 1213, 1194, 1317],
     [1312, 1214, 1315, 1318, 1311, 1311, 1, 1211],
     [1212, 1211, 1213, 1194, 1312, 1214, 1316, 1313],
     [1313, 1313, 1, 1211, 1212, 1211, 1213, 1194],
     [1312, 1214, 1313, 1313, 1313, 1, 1211, 1212],
     [1211, 1213, 1194, 1312, 1214, 1318, 1311, 1311],
     [1, 1211, 1212, 1211, 1213, 1312, 1214, 1311],
     [1311, 1311, 1, 1211, 1212, 1211, 1213, 1319],
     [1320, 1321, 1214, 1322, 1323, 1323, 1, 1211],
     [1212, 1211, 1213, 1194, 1325, 1214, 1324, 1324],
     [1324, 1, 1211, 1212, 1211, 1213, 1325, 1214],
     [1326, 1326, 1326, 1, 1211, 1212, 1211, 1213],
     [1325, 1214, 1327, 1327, 1327, 1, 1211, 1212],
     [1211, 1213, 1325, 1214, 1, 1306, 1307, 1308],
     [1309, 1310, 1310, 1, 1211, 1212, 1211, 1213],
     [1194, 1325, 1214, 1328, 1324, 1324, 1, 1211],
     [1212, 1211, 1213, 1194, 1325, 1214, 1329, 1326],
     [1326, 1, 1211, 1212, 1211, 1213, 1194, 1325],
     [1214, 1327, 1327, 1327, 1, 1211, 1212, 1211],
     [1213, 1194, 1330, 1325, 1214, 1328, 1331, 1324],
     [1324, 1, 1211, 1212, 1211, 1213, 1194, 1325],
     [1214, 1329, 1326, 1326, 1326, 1, 1211, 1212],
     [1211, 1213, 1194, 1325, 1214, 1326, 1326, 1326],
     [1, 1211, 1212, 1211, 1213, 1194, 1325, 1214],
     [1331, 1324, 1324, 1, 1211, 1212, 1211, 1213],
     [1325, 1214, 1324, 1324, 1324, 1, 1194, 1196],
     [1332, 1195, 1195, 1, 1194, 1196, 1333, 1218],
     [1218, 1, 1194, 1196, 1219, 1219, 1219, 1],
     [1194, 1334, 1196, 1332, 1335, 1195, 1195, 1]]"

definition smp_indicies_8 :: "int list list" where
  "smp_indicies_8 =
    [[1194, 1196, 1333, 1218, 1218, 1218, 1, 1194],
     [1196, 1218, 1218, 1218, 1, 1194, 1196, 1335],
     [1195, 1195, 1, 1336, 1, 1211, 1212, 1211],
     [1213, 1337, 1338, 1339, 1214, 1340, 1341, 1341],
     [1, 1211, 1212, 1211, 1213, 1194, 1343, 1214],
     [1342, 1342, 1342, 1, 1211, 1212, 1211, 1213],
     [1343, 1214, 1344, 1344, 1344, 1, 1211, 1212],
     [1211, 1213, 1343, 1214, 1345, 1345, 1345, 1],
     [1211, 1212, 1211, 1213, 1343, 1214, 1, 1319],
     [1320, 1321, 1322, 1323, 1323, 1, 1211, 1212],
     [1211, 1213, 1194, 1343, 1214, 1346, 1342, 1342],
     [1, 1211, 1212, 1211, 1213, 1194, 1343, 1214],
     [1347, 1344, 1344, 1, 1211, 1212, 1211, 1213],
     [1194, 1343, 1214, 1345, 1345, 1345, 1, 1211],
     [1212, 1211, 1213, 1194, 1348, 1343, 1214, 1346],
     [1349, 1342, 1342, 1, 1211, 1212, 1211, 1213],
     [1194, 1343, 1214, 1347, 1344, 1344, 1344, 1],
     [1211, 1212, 1211, 1213, 1194, 1343, 1214, 1344],
     [1344, 1344, 1, 1211, 1212, 1211, 1213, 1194],
     [1343, 1214, 1349, 1342, 1342, 1, 1211, 1212],
     [1211, 1213, 1343, 1214, 1342, 1342, 1342, 1],
     [1196, 1195, 1195, 1195, 1, 939, 940, 939],
     [941, 941, 941, 942, 943, 944, 1350, 1350],
     [941, 941, 941, 941, 941, 1, 939, 940],
     [939, 941, 941, 941, 942, 943, 944, 1351],
     [1351, 941, 941, 941, 941, 941, 1, 939],
     [940, 939, 941, 941, 941, 942, 943, 944],
     [1352, 1352, 941, 941, 941, 941, 941, 1],
     [1353, 1354, 1353, 941, 941, 941, 1355, 1356],
     [1357, 941, 941, 941, 941, 941, 1, 1358],
     [1359, 1358, 903, 905, 1360, 1, 1361, 1],
     [1362, 1362, 1, 1362, 1362, 903, 905, 1360],
     [1, 1360, 1363, 1360, 1364, 1366, 1365, 1367],
     [1, 1368, 1, 1369, 1369, 1, 1369, 1369],
     [1364, 1366, 1365, 1367, 1, 1370, 1371, 1],
     [1372, 1373, 1, 1374, 1, 1141, 1142, 1141],
     [1143, 905, 1, 1141, 1142, 1141, 1143, 905],
     [1374, 1, 1141, 1142, 1141, 1143, 905, 1373],
     [1, 1141, 1142, 1141, 1143, 905, 1367, 1],
     [1141, 1142, 1141, 1143, 905, 1371, 1, 1141],
     [1142, 1141, 1143, 1375, 905, 1367, 1371, 1],
     [1141, 1142, 1141, 1143, 1376, 905, 1371, 1373],
     [1, 1141, 1142, 1141, 1143, 1377, 905, 1373],
     [1374, 1, 1141, 1142, 1141, 1143, 905, 1374],
     [1, 1378, 1, 1362, 46, 1362, 47, 47],
     [47, 48, 49, 50, 51, 52, 53, 54],
     [55, 56, 57, 58, 48, 49, 50, 51],
     [52, 53, 54, 55, 56, 57, 58, 47],
     [47, 47, 47, 47, 47, 1, 924, 925],
     [924, 926, 927, 923, 1, 924, 925, 924],
     [926, 927, 922, 1, 924, 925, 924, 926],
     [927, 1379, 1, 924, 925, 924, 926, 927],
     [920, 1, 924, 925, 924, 926, 1380, 927],
     [1379, 920, 1, 924, 925, 924, 926, 1381],
     [927, 920, 922, 1, 924, 925, 924, 926],
     [1382, 927, 922, 923, 1, 924, 925, 924],
     [926, 927, 923, 1, 1383, 1, 907, 46],
     [907, 47, 47, 47, 48, 49, 50, 51],
     [52, 53, 54, 55, 56, 57, 58, 48],
     [49, 50, 51, 52, 53, 54, 55, 56],
     [57, 58, 47, 47, 47, 47, 47, 47],
     [1, 897, 897, 893, 893, 893, 1, 894],
     [895, 894, 896, 899, 900, 891, 893, 893],
     [1, 1384, 1385, 1386, 1387, 893, 893, 1],
     [889, 1388, 889, 891, 891, 891, 1, 1389],
     [1390, 1391, 1392, 893, 893, 1, 889, 1393],
     [889, 891, 891, 891, 1, 1394, 1395, 1396],
     [1397, 893, 893, 1, 894, 895, 894, 896],
     [889, 892, 899, 900, 889, 891, 891, 891],
     [1, 894, 895, 894, 896, 889, 892, 899],
     [900, 889, 1397, 891, 891, 1, 894, 895],
     [894, 896, 889, 892, 899, 900, 889, 1394],
     [891, 891, 1, 894, 895, 894, 896, 889],
     [892, 1398, 899, 900, 889, 1397, 1394, 891],
     [891, 1, 894, 895, 894, 896, 889, 892],
     [899, 900, 889, 1394, 891, 891, 891, 1],
     [889, 1393, 889, 1392, 891, 891, 1, 889],
     [1393, 889, 1389, 891, 891, 1, 889, 1393],
     [1399, 889, 1392, 1389, 891, 891, 1, 889],
     [1393, 889, 1389, 891, 891, 891, 1, 889],
     [1388, 889, 1387, 891, 891, 1, 889, 1388],
     [889, 1384, 891, 891, 1, 889, 1388, 1400],
     [889, 1387, 1384, 891, 891, 1, 889, 1388],
     [889, 1384, 891, 891, 891, 1, 889, 890],
     [889, 1401, 891, 891, 1, 889, 890, 889],
     [1402, 891, 891, 1, 889, 890, 1403, 889],
     [1401, 1402, 891, 891, 1, 889, 890, 889],
     [1402, 891, 891, 891, 1, 1405, 1404, 1404],
     [1404, 1, 1407, 1406, 1406, 1406, 1, 1407],
     [1408, 1408, 1408, 1, 1407, 1409, 1409, 1409],
     [1, 1407, 1, 1411, 1410, 1410, 1410, 1],
     [1413, 1412, 1412, 1412, 1, 1413, 1414, 1414],
     [1414, 1, 1413, 1415, 1415, 1415, 1, 1413],
     [1, 1417, 1416, 1416, 1416, 1, 1419, 1418],
     [1418, 1418, 1, 1419, 1420, 1420, 1420, 1],
     [1419, 1421, 1421, 1421, 1, 1419, 1, 1423],
     [1422, 1422, 1422, 1, 1425, 1424, 1424, 1424],
     [1, 1425, 1426, 1426, 1426, 1, 1425, 1427],
     [1427, 1427, 1, 1425, 1, 1429, 1428, 1428],
     [1428, 1, 1431, 1430, 1430, 1430, 1, 1431],
     [1432, 1432, 1432, 1, 1431, 1433, 1433, 1433],
     [1, 1431, 1, 1435, 1434, 1434, 1434, 1],
     [1437, 1436, 1436, 1436, 1, 1437, 1438, 1438],
     [1438, 1, 1437, 1439, 1439, 1439, 1, 1437],
     [1, 1440, 1441, 1442, 1444, 1443, 1445, 1445],
     [1, 1446, 1448, 1447, 1447, 1447, 1, 1449],
     [1450, 1451, 1452, 1, 1453, 1, 1454, 1455],
     [1456, 1457, 1, 1458, 1, 1459, 1460, 1461],
     [1462, 1, 1463, 1, 894, 895, 894, 896],
     [899, 900, 1, 1463, 1462, 1, 1463, 1459],
     [1, 1464, 1463, 1462, 1459, 1, 1463, 1459],
     [1, 1458, 1457, 1, 1458, 1454, 1, 1458],
     [1465, 1457, 1454, 1, 1458, 1454, 1, 1453],
     [1452, 1, 1453, 1449, 1, 1453, 1466, 1452],
     [1449, 1, 1453, 1449, 1, 1448, 1467, 1467],
     [1467, 1, 1448, 1468, 1468, 1468, 1, 1448],
     [1, 1459, 1469, 1469, 1469, 1, 1463, 1470],
     [1470, 1470, 1, 1463, 1471, 1471, 1471, 1],
     [1463, 1459, 1459, 1459, 1, 1446, 1448, 1472],
     [1447, 1447, 1, 1446, 1448, 1473, 1467, 1467],
     [1, 1446, 1448, 1468, 1468, 1468, 1, 1446],
     [1474, 1448, 1472, 1475, 1447, 1447, 1, 1446],
     [1448, 1473, 1467, 1467, 1467, 1, 1446, 1448],
     [1467, 1467, 1467, 1, 1446, 1448, 1475, 1447],
     [1447, 1, 1463, 1469, 1469, 1469, 1, 1448],
     [1447, 1447, 1447, 1, 1476, 1477, 1478, 1463],
     [1479, 1480, 1480, 1, 1446, 1482, 1463, 1481],
     [1481, 1481, 1, 1482, 1463, 1483, 1483, 1483],
     [1, 1482, 1463, 1484, 1484, 1484, 1, 1482],
     [1463, 1, 1469, 1469, 1469, 1, 1446, 1482],
     [1463, 1485, 1481, 1481, 1, 1446, 1482, 1463],
     [1486, 1483, 1483, 1, 1446, 1482, 1463, 1484],
     [1484, 1484, 1, 1446, 1487, 1482, 1463, 1485],
     [1488, 1481, 1481, 1, 1446, 1482, 1463, 1486],
     [1483, 1483, 1483, 1, 1446, 1482, 1463, 1483],
     [1483, 1483, 1, 1446, 1482, 1463, 1488, 1481],
     [1481, 1, 1482, 1463, 1481, 1481, 1481, 1],
     [1489, 1490, 1491, 1463, 1492, 1493, 1493, 1],
     [1446, 1495, 1463, 1494, 1494, 1494, 1, 1495],
     [1463, 1496, 1496, 1496, 1, 1495, 1463, 1497],
     [1497, 1497, 1, 1495, 1463, 1, 1476, 1477],
     [1478, 1479, 1480, 1480, 1, 1446, 1495, 1463],
     [1498, 1494, 1494, 1, 1446, 1495, 1463, 1499],
     [1496, 1496, 1, 1446, 1495, 1463, 1497, 1497],
     [1497, 1, 1446, 1500, 1495, 1463, 1498, 1501],
     [1494, 1494, 1, 1446, 1495, 1463, 1499, 1496],
     [1496, 1496, 1, 1446, 1495, 1463, 1496, 1496],
     [1496, 1, 1446, 1495, 1463, 1501, 1494, 1494],
     [1, 1495, 1463, 1494, 1494, 1494, 1, 1502],
     [1503, 1504, 1463, 1505, 1506, 1506, 1, 1446]]"

definition smp_indicies_9 :: "int list list" where
  "smp_indicies_9 =
    [[1508, 1463, 1507, 1507, 1507, 1, 1508, 1463],
     [1509, 1509, 1509, 1, 1508, 1463, 1510, 1510],
     [1510, 1, 1508, 1463, 1, 1489, 1490, 1491],
     [1492, 1493, 1493, 1, 1446, 1508, 1463, 1511],
     [1507, 1507, 1, 1446, 1508, 1463, 1512, 1509],
     [1509, 1, 1446, 1508, 1463, 1510, 1510, 1510],
     [1, 1446, 1513, 1508, 1463, 1511, 1514, 1507],
     [1507, 1, 1446, 1508, 1463, 1512, 1509, 1509],
     [1509, 1, 1446, 1508, 1463, 1509, 1509, 1509],
     [1, 1446, 1508, 1463, 1514, 1507, 1507, 1],
     [1508, 1463, 1507, 1507, 1507, 1, 1515, 1516],
     [1517, 1463, 1518, 1519, 1519, 1, 1446, 1521],
     [1463, 1520, 1520, 1520, 1, 1521, 1463, 1522],
     [1522, 1522, 1, 1521, 1463, 1523, 1523, 1523],
     [1, 1521, 1463, 1, 1502, 1503, 1504, 1505],
     [1506, 1506, 1, 1446, 1521, 1463, 1524, 1520],
     [1520, 1, 1446, 1521, 1463, 1525, 1522, 1522],
     [1, 1446, 1521, 1463, 1523, 1523, 1523, 1],
     [1446, 1526, 1521, 1463, 1524, 1527, 1520, 1520],
     [1, 1446, 1521, 1463, 1525, 1522, 1522, 1522],
     [1, 1446, 1521, 1463, 1522, 1522, 1522, 1],
     [1446, 1521, 1463, 1527, 1520, 1520, 1, 1521],
     [1463, 1520, 1520, 1520, 1, 1528, 1529, 1530],
     [1463, 1531, 1532, 1532, 1, 1446, 1534, 1463],
     [1533, 1533, 1533, 1, 1534, 1463, 1535, 1535],
     [1535, 1, 1534, 1463, 1536, 1536, 1536, 1],
     [1534, 1463, 1, 1515, 1516, 1517, 1518, 1519],
     [1519, 1, 1446, 1534, 1463, 1537, 1533, 1533],
     [1, 1446, 1534, 1463, 1538, 1535, 1535, 1],
     [1446, 1534, 1463, 1536, 1536, 1536, 1, 1446],
     [1539, 1534, 1463, 1537, 1540, 1533, 1533, 1],
     [1446, 1534, 1463, 1538, 1535, 1535, 1535, 1],
     [1446, 1534, 1463, 1535, 1535, 1535, 1, 1446],
     [1534, 1463, 1540, 1533, 1533, 1, 1534, 1463],
     [1533, 1533, 1533, 1, 1541, 1, 1542, 1543],
     [1544, 1463, 1545, 1546, 1546, 1, 1446, 1548],
     [1463, 1547, 1547, 1547, 1, 1548, 1463, 1549],
     [1549, 1549, 1, 1548, 1463, 1550, 1550, 1550],
     [1, 1548, 1463, 1, 1528, 1529, 1530, 1531],
     [1532, 1532, 1, 1446, 1548, 1463, 1551, 1547],
     [1547, 1, 1446, 1548, 1463, 1552, 1549, 1549],
     [1, 1446, 1548, 1463, 1550, 1550, 1550, 1],
     [1446, 1553, 1548, 1463, 1551, 1554, 1547, 1547],
     [1, 1446, 1548, 1463, 1552, 1549, 1549, 1549],
     [1, 1446, 1548, 1463, 1549, 1549, 1549, 1],
     [1446, 1548, 1463, 1554, 1547, 1547, 1, 1548],
     [1463, 1547, 1547, 1547, 1, 60, 60, 61],
     [61, 61, 62, 1555, 1555, 61, 61, 61],
     [61, 61, 61, 1, 851, 851, 61, 61],
     [61, 852, 61, 61, 61, 61, 61, 61],
     [1, 676, 677, 676, 672, 672, 672, 665],
     [678, 1556, 1556, 672, 672, 672, 672, 672],
     [672, 1, 676, 677, 676, 672, 672, 672],
     [665, 678, 1557, 1557, 672, 672, 672, 672],
     [672, 672, 1, 1558, 1559, 1558, 672, 672],
     [672, 665, 1560, 672, 672, 672, 672, 672],
     [672, 1, 1558, 1561, 1558, 665, 1560, 1],
     [1562, 1, 1563, 1563, 1, 1563, 1563, 665],
     [1560, 1, 1560, 1564, 1560, 1565, 684, 1565],
     [1565, 685, 1565, 1565, 1565, 1565, 1565, 1565],
     [1, 1566, 1, 1567, 1567, 1, 1567, 1567],
     [1565, 684, 1565, 1565, 685, 1565, 1565, 1565],
     [1565, 1565, 1565, 1, 1568, 1569, 1568, 1570],
     [1570, 1570, 1571, 1570, 1570, 1570, 1570, 1570],
     [1570, 1, 1572, 1, 1563, 46, 1563, 47],
     [47, 47, 48, 49, 50, 51, 52, 53],
     [54, 55, 56, 57, 58, 48, 49, 50],
     [51, 52, 53, 54, 55, 56, 57, 58],
     [47, 47, 47, 47, 47, 47, 1, 631],
     [1573, 632, 631, 631, 631, 631, 631, 1],
     [1574, 1574, 1574, 1, 631, 631, 631, 1],
     [632, 631, 662, 1, 632, 631, 661, 1],
     [632, 631, 657, 1, 632, 631, 659, 1],
     [1575, 632, 631, 657, 659, 1, 1576, 632],
     [631, 659, 661, 1, 1577, 632, 631, 661],
     [662, 1, 632, 631, 662, 1, 1578, 1579],
     [1580, 1581, 646, 646, 1, 647, 1582, 647],
     [649, 649, 649, 1, 1583, 1584, 1585, 1586],
     [646, 646, 1, 647, 1587, 647, 649, 649],
     [649, 1, 1588, 1589, 1590, 1591, 646, 646],
     [1, 647, 650, 653, 632, 631, 647, 649],
     [649, 649, 1, 647, 650, 653, 632, 631],
     [647, 1591, 649, 649, 1, 647, 650, 653],
     [632, 631, 647, 1588, 649, 649, 1, 647],
     [650, 1592, 653, 632, 631, 647, 1591, 1588],
     [649, 649, 1, 647, 650, 653, 632, 631],
     [647, 1588, 649, 649, 649, 1, 647, 1587],
     [647, 1586, 649, 649, 1, 647, 1587, 647],
     [1583, 649, 649, 1, 647, 1587, 1593, 647],
     [1586, 1583, 649, 649, 1, 647, 1587, 647],
     [1583, 649, 649, 649, 1, 647, 1582, 647],
     [1581, 649, 649, 1, 647, 1582, 647, 1578],
     [649, 649, 1, 647, 1582, 1594, 647, 1581],
     [1578, 649, 649, 1, 647, 1582, 647, 1578],
     [649, 649, 649, 1, 647, 648, 647, 645],
     [649, 649, 1, 647, 648, 647, 642, 649],
     [649, 1, 647, 648, 1595, 647, 645, 642],
     [649, 649, 1, 647, 648, 647, 642, 649],
     [649, 649, 1, 1597, 1596, 1596, 1596, 1],
     [1599, 1598, 1598, 1598, 1, 1599, 1600, 1600],
     [1600, 1, 1599, 1601, 1601, 1601, 1, 1599],
     [1, 1603, 1602, 1602, 1602, 1, 1605, 1604],
     [1604, 1604, 1, 1605, 1606, 1606, 1606, 1],
     [1605, 1607, 1607, 1607, 1, 1605, 1, 1609],
     [1608, 1608, 1608, 1, 1611, 1610, 1610, 1610],
     [1, 1611, 1612, 1612, 1612, 1, 1611, 1613],
     [1613, 1613, 1, 1611, 1, 1615, 1614, 1614],
     [1614, 1, 1617, 1616, 1616, 1616, 1, 1617],
     [1618, 1618, 1618, 1, 1617, 1619, 1619, 1619],
     [1, 1617, 1, 1621, 1620, 1620, 1620, 1],
     [1623, 1622, 1622, 1622, 1, 1623, 1624, 1624],
     [1624, 1, 1623, 1625, 1625, 1625, 1, 1623],
     [1, 1627, 1626, 1626, 1626, 1, 1629, 1628],
     [1628, 1628, 1, 1629, 1630, 1630, 1630, 1],
     [1629, 1631, 1631, 1631, 1, 1629, 1, 1632],
     [1633, 1634, 1636, 1635, 1637, 1637, 1, 1638],
     [1640, 1639, 1639, 1639, 1, 1641, 1642, 1643],
     [1644, 1, 1645, 1, 1646, 1647, 1648, 1649],
     [1, 1650, 1, 1651, 1652, 1653, 1654, 1],
     [1655, 1, 653, 632, 631, 1, 1655, 1654],
     [1, 1655, 1651, 1, 1656, 1655, 1654, 1651],
     [1, 1655, 1651, 1, 1650, 1649, 1, 1650],
     [1646, 1, 1650, 1657, 1649, 1646, 1, 1650],
     [1646, 1, 1645, 1644, 1, 1645, 1641, 1],
     [1645, 1658, 1644, 1641, 1, 1645, 1641, 1],
     [1640, 1659, 1659, 1659, 1, 1640, 1660, 1660],
     [1660, 1, 1640, 1, 1651, 1661, 1661, 1661],
     [1, 1655, 1662, 1662, 1662, 1, 1655, 1663],
     [1663, 1663, 1, 1655, 1651, 1651, 1651, 1],
     [1638, 1640, 1664, 1639, 1639, 1, 1638, 1640],
     [1665, 1659, 1659, 1, 1638, 1640, 1660, 1660],
     [1660, 1, 1638, 1666, 1640, 1664, 1667, 1639],
     [1639, 1, 1638, 1640, 1665, 1659, 1659, 1659],
     [1, 1638, 1640, 1659, 1659, 1659, 1, 1638],
     [1640, 1667, 1639, 1639, 1, 1655, 1661, 1661],
     [1661, 1, 1640, 1639, 1639, 1639, 1, 1668],
     [1669, 1670, 1655, 1671, 1672, 1672, 1, 1638],
     [1674, 1655, 1673, 1673, 1673, 1, 1674, 1655],
     [1675, 1675, 1675, 1, 1674, 1655, 1676, 1676],
     [1676, 1, 1674, 1655, 1, 1661, 1661, 1661],
     [1, 1638, 1674, 1655, 1677, 1673, 1673, 1],
     [1638, 1674, 1655, 1678, 1675, 1675, 1, 1638],
     [1674, 1655, 1676, 1676, 1676, 1, 1638, 1679],
     [1674, 1655, 1677, 1680, 1673, 1673, 1, 1638],
     [1674, 1655, 1678, 1675, 1675, 1675, 1, 1638],
     [1674, 1655, 1675, 1675, 1675, 1, 1638, 1674],
     [1655, 1680, 1673, 1673, 1, 1674, 1655, 1673],
     [1673, 1673, 1, 1681, 1682, 1683, 1655, 1684],
     [1685, 1685, 1, 1638, 1687, 1655, 1686, 1686],
     [1686, 1, 1687, 1655, 1688, 1688, 1688, 1]]"

definition smp_indicies_10 :: "int list list" where
  "smp_indicies_10 =
    [[1687, 1655, 1689, 1689, 1689, 1, 1687, 1655],
     [1, 1668, 1669, 1670, 1671, 1672, 1672, 1],
     [1638, 1687, 1655, 1690, 1686, 1686, 1, 1638],
     [1687, 1655, 1691, 1688, 1688, 1, 1638, 1687],
     [1655, 1689, 1689, 1689, 1, 1638, 1692, 1687],
     [1655, 1690, 1693, 1686, 1686, 1, 1638, 1687],
     [1655, 1691, 1688, 1688, 1688, 1, 1638, 1687],
     [1655, 1688, 1688, 1688, 1, 1638, 1687, 1655],
     [1693, 1686, 1686, 1, 1687, 1655, 1686, 1686],
     [1686, 1, 1694, 1695, 1696, 1655, 1697, 1698],
     [1698, 1, 1638, 1700, 1655, 1699, 1699, 1699],
     [1, 1700, 1655, 1701, 1701, 1701, 1, 1700],
     [1655, 1702, 1702, 1702, 1, 1700, 1655, 1],
     [1681, 1682, 1683, 1684, 1685, 1685, 1, 1638],
     [1700, 1655, 1703, 1699, 1699, 1, 1638, 1700],
     [1655, 1704, 1701, 1701, 1, 1638, 1700, 1655],
     [1702, 1702, 1702, 1, 1638, 1705, 1700, 1655],
     [1703, 1706, 1699, 1699, 1, 1638, 1700, 1655],
     [1704, 1701, 1701, 1701, 1, 1638, 1700, 1655],
     [1701, 1701, 1701, 1, 1638, 1700, 1655, 1706],
     [1699, 1699, 1, 1700, 1655, 1699, 1699, 1699],
     [1, 1707, 1708, 1709, 1655, 1710, 1711, 1711],
     [1, 1638, 1713, 1655, 1712, 1712, 1712, 1],
     [1713, 1655, 1714, 1714, 1714, 1, 1713, 1655],
     [1715, 1715, 1715, 1, 1713, 1655, 1, 1694],
     [1695, 1696, 1697, 1698, 1698, 1, 1638, 1713],
     [1655, 1716, 1712, 1712, 1, 1638, 1713, 1655],
     [1717, 1714, 1714, 1, 1638, 1713, 1655, 1715],
     [1715, 1715, 1, 1638, 1718, 1713, 1655, 1716],
     [1719, 1712, 1712, 1, 1638, 1713, 1655, 1717],
     [1714, 1714, 1714, 1, 1638, 1713, 1655, 1714],
     [1714, 1714, 1, 1638, 1713, 1655, 1719, 1712],
     [1712, 1, 1713, 1655, 1712, 1712, 1712, 1],
     [1720, 1721, 1722, 1655, 1723, 1724, 1724, 1],
     [1638, 1726, 1655, 1725, 1725, 1725, 1, 1726],
     [1655, 1727, 1727, 1727, 1, 1726, 1655, 1728],
     [1728, 1728, 1, 1726, 1655, 1, 1707, 1708],
     [1709, 1710, 1711, 1711, 1, 1638, 1726, 1655],
     [1729, 1725, 1725, 1, 1638, 1726, 1655, 1730],
     [1727, 1727, 1, 1638, 1726, 1655, 1728, 1728],
     [1728, 1, 1638, 1731, 1726, 1655, 1729, 1732],
     [1725, 1725, 1, 1638, 1726, 1655, 1730, 1727],
     [1727, 1727, 1, 1638, 1726, 1655, 1727, 1727],
     [1727, 1, 1638, 1726, 1655, 1732, 1725, 1725],
     [1, 1726, 1655, 1725, 1725, 1725, 1, 1733],
     [1, 1734, 1735, 1736, 1655, 1737, 1738, 1738],
     [1, 1638, 1740, 1655, 1739, 1739, 1739, 1],
     [1740, 1655, 1741, 1741, 1741, 1, 1740, 1655],
     [1742, 1742, 1742, 1, 1740, 1655, 1, 1720],
     [1721, 1722, 1723, 1724, 1724, 1, 1638, 1740],
     [1655, 1743, 1739, 1739, 1, 1638, 1740, 1655],
     [1744, 1741, 1741, 1, 1638, 1740, 1655, 1742],
     [1742, 1742, 1, 1638, 1745, 1740, 1655, 1743],
     [1746, 1739, 1739, 1, 1638, 1740, 1655, 1744],
     [1741, 1741, 1741, 1, 1638, 1740, 1655, 1741],
     [1741, 1741, 1, 1638, 1740, 1655, 1746, 1739],
     [1739, 1, 1740, 1655, 1739, 1739, 1739, 1],
     [1747, 1747, 1747, 1, 627, 627, 627, 1],
     [634, 1748, 631, 632, 631, 635, 634, 634],
     [634, 631, 634, 634, 1, 1749, 1749, 1749],
     [1, 634, 634, 634, 1, 631, 1573, 632],
     [633, 631, 631, 631, 631, 631, 1, 627],
     [628, 629, 1750, 634, 632, 635, 627, 627],
     [627, 627, 627, 1, 1751, 1752, 1753, 634],
     [632, 635, 1754, 1751, 1751, 1751, 1751, 1751],
     [1, 1751, 1752, 1753, 1755, 632, 1756, 1751],
     [1751, 1751, 1751, 1751, 1, 1752, 1757, 1758],
     [1752, 1759, 1752, 1752, 1752, 1752, 1752, 1],
     [1760, 1760, 1760, 1, 1752, 1752, 1752, 1],
     [1758, 1761, 1758, 1759, 1758, 1758, 1758, 1758],
     [1758, 1758, 1, 1762, 1762, 1762, 1, 1758],
     [1758, 1758, 1, 1763, 1764, 1765, 1754, 1766],
     [1767, 1767, 1, 1768, 1769, 1768, 1770, 1770],
     [1770, 1, 1768, 1768, 1770, 1770, 1770, 1],
     [1768, 1771, 1768, 1770, 1770, 1770, 1, 1770],
     [1767, 1767, 1, 1772, 1773, 631, 1774, 632],
     [631, 1772, 1767, 1767, 1767, 1, 1772, 1772],
     [1767, 1767, 1767, 1, 631, 1774, 632, 631],
     [1770, 1767, 1767, 1, 1775, 1777, 1776, 1778],
     [1, 1779, 1780, 1, 1781, 1782, 1, 1783],
     [1, 631, 632, 631, 1, 631, 632, 631],
     [1783, 1, 631, 632, 631, 1782, 1, 631],
     [632, 631, 1778, 1, 631, 632, 631, 1780],
     [1, 631, 1784, 632, 631, 1778, 1780, 1],
     [631, 1785, 632, 631, 1780, 1782, 1, 631],
     [1786, 632, 631, 1782, 1783, 1, 631, 632],
     [631, 1783, 1, 1787, 1788, 1789, 1790, 1767],
     [1767, 1, 1768, 1791, 1768, 1770, 1770, 1770],
     [1, 1792, 1793, 1794, 1795, 1767, 1767, 1],
     [1768, 1796, 1768, 1770, 1770, 1770, 1, 1797],
     [1798, 1799, 1800, 1767, 1767, 1, 1768, 1771],
     [631, 1774, 632, 631, 1768, 1770, 1770, 1770],
     [1, 1768, 1771, 631, 1774, 632, 631, 1768],
     [1800, 1770, 1770, 1, 1768, 1771, 631, 1774],
     [632, 631, 1768, 1797, 1770, 1770, 1, 1768],
     [1771, 631, 1801, 1774, 632, 631, 1768, 1800],
     [1797, 1770, 1770, 1, 1768, 1771, 631, 1774],
     [632, 631, 1768, 1797, 1770, 1770, 1770, 1],
     [1768, 1796, 1768, 1795, 1770, 1770, 1, 1768],
     [1796, 1768, 1792, 1770, 1770, 1, 1768, 1796],
     [1802, 1768, 1795, 1792, 1770, 1770, 1, 1768],
     [1796, 1768, 1792, 1770, 1770, 1770, 1, 1768],
     [1791, 1768, 1790, 1770, 1770, 1, 1768, 1791],
     [1768, 1787, 1770, 1770, 1, 1768, 1791, 1803],
     [1768, 1790, 1787, 1770, 1770, 1, 1768, 1791],
     [1768, 1787, 1770, 1770, 1770, 1, 1768, 1769],
     [1768, 1766, 1770, 1770, 1, 1768, 1769, 1768],
     [1763, 1770, 1770, 1, 1768, 1769, 1804, 1768],
     [1766, 1763, 1770, 1770, 1, 1768, 1769, 1768],
     [1763, 1770, 1770, 1770, 1, 1806, 1805, 1805],
     [1805, 1, 1808, 1807, 1807, 1807, 1, 1808],
     [1809, 1809, 1809, 1, 1808, 1810, 1810, 1810],
     [1, 1808, 1, 1812, 1811, 1811, 1811, 1],
     [1814, 1813, 1813, 1813, 1, 1814, 1815, 1815],
     [1815, 1, 1814, 1816, 1816, 1816, 1, 1814],
     [1, 1818, 1817, 1817, 1817, 1, 1820, 1819],
     [1819, 1819, 1, 1820, 1821, 1821, 1821, 1],
     [1820, 1822, 1822, 1822, 1, 1820, 1, 1824],
     [1823, 1823, 1823, 1, 1826, 1825, 1825, 1825],
     [1, 1826, 1827, 1827, 1827, 1, 1826, 1828],
     [1828, 1828, 1, 1826, 1, 1830, 1829, 1829],
     [1829, 1, 1832, 1831, 1831, 1831, 1, 1832],
     [1833, 1833, 1833, 1, 1832, 1834, 1834, 1834],
     [1, 1832, 1, 1836, 1835, 1835, 1835, 1],
     [1838, 1837, 1837, 1837, 1, 1838, 1839, 1839],
     [1839, 1, 1838, 1840, 1840, 1840, 1, 1838],
     [1, 1841, 1842, 1843, 1845, 1844, 1846, 1846],
     [1, 1847, 1849, 1848, 1848, 1848, 1, 1850],
     [1851, 1852, 1853, 1, 1854, 1, 1855, 1856],
     [1857, 1858, 1, 1859, 1, 1860, 1861, 1862],
     [1863, 1, 1864, 1, 631, 1774, 632, 631],
     [1, 1864, 1863, 1, 1864, 1860, 1, 1865],
     [1864, 1863, 1860, 1, 1864, 1860, 1, 1859],
     [1858, 1, 1859, 1855, 1, 1859, 1866, 1858],
     [1855, 1, 1859, 1855, 1, 1854, 1853, 1],
     [1854, 1850, 1, 1854, 1867, 1853, 1850, 1],
     [1854, 1850, 1, 1849, 1868, 1868, 1868, 1],
     [1849, 1869, 1869, 1869, 1, 1849, 1, 1860],
     [1870, 1870, 1870, 1, 1864, 1871, 1871, 1871],
     [1, 1864, 1872, 1872, 1872, 1, 1864, 1860],
     [1860, 1860, 1, 1847, 1849, 1873, 1848, 1848],
     [1, 1847, 1849, 1874, 1868, 1868, 1, 1847],
     [1849, 1869, 1869, 1869, 1, 1847, 1875, 1849],
     [1873, 1876, 1848, 1848, 1, 1847, 1849, 1874],
     [1868, 1868, 1868, 1, 1847, 1849, 1868, 1868],
     [1868, 1, 1847, 1849, 1876, 1848, 1848, 1],
     [1864, 1870, 1870, 1870, 1, 1849, 1848, 1848],
     [1848, 1, 1877, 1878, 1879, 1864, 1880, 1881],
     [1881, 1, 1847, 1883, 1864, 1882, 1882, 1882],
     [1, 1883, 1864, 1884, 1884, 1884, 1, 1883]]"

definition smp_indicies_11 :: "int list list" where
  "smp_indicies_11 =
    [[1864, 1885, 1885, 1885, 1, 1883, 1864, 1],
     [1870, 1870, 1870, 1, 1847, 1883, 1864, 1886],
     [1882, 1882, 1, 1847, 1883, 1864, 1887, 1884],
     [1884, 1, 1847, 1883, 1864, 1885, 1885, 1885],
     [1, 1847, 1888, 1883, 1864, 1886, 1889, 1882],
     [1882, 1, 1847, 1883, 1864, 1887, 1884, 1884],
     [1884, 1, 1847, 1883, 1864, 1884, 1884, 1884],
     [1, 1847, 1883, 1864, 1889, 1882, 1882, 1],
     [1883, 1864, 1882, 1882, 1882, 1, 1890, 1891],
     [1892, 1864, 1893, 1894, 1894, 1, 1847, 1896],
     [1864, 1895, 1895, 1895, 1, 1896, 1864, 1897],
     [1897, 1897, 1, 1896, 1864, 1898, 1898, 1898],
     [1, 1896, 1864, 1, 1877, 1878, 1879, 1880],
     [1881, 1881, 1, 1847, 1896, 1864, 1899, 1895],
     [1895, 1, 1847, 1896, 1864, 1900, 1897, 1897],
     [1, 1847, 1896, 1864, 1898, 1898, 1898, 1],
     [1847, 1901, 1896, 1864, 1899, 1902, 1895, 1895],
     [1, 1847, 1896, 1864, 1900, 1897, 1897, 1897],
     [1, 1847, 1896, 1864, 1897, 1897, 1897, 1],
     [1847, 1896, 1864, 1902, 1895, 1895, 1, 1896],
     [1864, 1895, 1895, 1895, 1, 1903, 1904, 1905],
     [1864, 1906, 1907, 1907, 1, 1847, 1909, 1864],
     [1908, 1908, 1908, 1, 1909, 1864, 1910, 1910],
     [1910, 1, 1909, 1864, 1911, 1911, 1911, 1],
     [1909, 1864, 1, 1890, 1891, 1892, 1893, 1894],
     [1894, 1, 1847, 1909, 1864, 1912, 1908, 1908],
     [1, 1847, 1909, 1864, 1913, 1910, 1910, 1],
     [1847, 1909, 1864, 1911, 1911, 1911, 1, 1847],
     [1914, 1909, 1864, 1912, 1915, 1908, 1908, 1],
     [1847, 1909, 1864, 1913, 1910, 1910, 1910, 1],
     [1847, 1909, 1864, 1910, 1910, 1910, 1, 1847],
     [1909, 1864, 1915, 1908, 1908, 1, 1909, 1864],
     [1908, 1908, 1908, 1, 1916, 1917, 1918, 1864],
     [1919, 1920, 1920, 1, 1847, 1922, 1864, 1921],
     [1921, 1921, 1, 1922, 1864, 1923, 1923, 1923],
     [1, 1922, 1864, 1924, 1924, 1924, 1, 1922],
     [1864, 1, 1903, 1904, 1905, 1906, 1907, 1907],
     [1, 1847, 1922, 1864, 1925, 1921, 1921, 1],
     [1847, 1922, 1864, 1926, 1923, 1923, 1, 1847],
     [1922, 1864, 1924, 1924, 1924, 1, 1847, 1927],
     [1922, 1864, 1925, 1928, 1921, 1921, 1, 1847],
     [1922, 1864, 1926, 1923, 1923, 1923, 1, 1847],
     [1922, 1864, 1923, 1923, 1923, 1, 1847, 1922],
     [1864, 1928, 1921, 1921, 1, 1922, 1864, 1921],
     [1921, 1921, 1, 1929, 1930, 1931, 1864, 1932],
     [1933, 1933, 1, 1847, 1935, 1864, 1934, 1934],
     [1934, 1, 1935, 1864, 1936, 1936, 1936, 1],
     [1935, 1864, 1937, 1937, 1937, 1, 1935, 1864],
     [1, 1916, 1917, 1918, 1919, 1920, 1920, 1],
     [1847, 1935, 1864, 1938, 1934, 1934, 1, 1847],
     [1935, 1864, 1939, 1936, 1936, 1, 1847, 1935],
     [1864, 1937, 1937, 1937, 1, 1847, 1940, 1935],
     [1864, 1938, 1941, 1934, 1934, 1, 1847, 1935],
     [1864, 1939, 1936, 1936, 1936, 1, 1847, 1935],
     [1864, 1936, 1936, 1936, 1, 1847, 1935, 1864],
     [1941, 1934, 1934, 1, 1935, 1864, 1934, 1934],
     [1934, 1, 1942, 1, 1943, 1944, 1945, 1864],
     [1946, 1947, 1947, 1, 1847, 1949, 1864, 1948],
     [1948, 1948, 1, 1949, 1864, 1950, 1950, 1950],
     [1, 1949, 1864, 1951, 1951, 1951, 1, 1949],
     [1864, 1, 1929, 1930, 1931, 1932, 1933, 1933],
     [1, 1847, 1949, 1864, 1952, 1948, 1948, 1],
     [1847, 1949, 1864, 1953, 1950, 1950, 1, 1847],
     [1949, 1864, 1951, 1951, 1951, 1, 1847, 1954],
     [1949, 1864, 1952, 1955, 1948, 1948, 1, 1847],
     [1949, 1864, 1953, 1950, 1950, 1950, 1, 1847],
     [1949, 1864, 1950, 1950, 1950, 1, 1847, 1949],
     [1864, 1955, 1948, 1948, 1, 1949, 1864, 1948],
     [1948, 1948, 1, 1956, 1956, 1956, 1, 1751],
     [1751, 1751, 1, 1755, 1957, 631, 632, 631],
     [1756, 1755, 1755, 1755, 631, 1755, 1755, 1],
     [1958, 1958, 1958, 1, 1755, 1755, 1755, 1],
     [631, 1573, 632, 1754, 631, 631, 631, 631],
     [631, 1, 625, 626, 1959, 1959, 625, 625],
     [625, 625, 1, 625, 626, 1960, 1960, 625],
     [625, 625, 625, 1, 625, 1961, 1962, 1962],
     [625, 625, 625, 625, 1, 1963, 1964, 1965],
     [1966, 1967, 1963, 1963, 1963, 1970, 1963, 1963],
     [1963, 1968, 1969, 1969, 1, 1971, 1972, 1973],
     [1971, 1974, 1971, 1971, 1971, 1971, 1971, 1],
     [1975, 1975, 1975, 1, 1971, 1971, 1971, 1],
     [1973, 1976, 1973, 1974, 1973, 1973, 1973, 1973],
     [1973, 1973, 1, 1977, 1977, 1977, 1, 1973],
     [1973, 1973, 1, 1978, 1979, 1980, 1970, 1981],
     [1982, 1982, 1, 1983, 1984, 1983, 1985, 1985],
     [1985, 1, 1983, 1983, 1985, 1985, 1985, 1],
     [1983, 1986, 1983, 1985, 1985, 1985, 1, 1985],
     [1987, 1987, 1, 1988, 1989, 1990, 1991, 1992],
     [1993, 1988, 1987, 1987, 1987, 1, 1988, 1988],
     [1987, 1987, 1987, 1, 1990, 1991, 1992, 1993],
     [1985, 1987, 1987, 1, 1994, 1996, 1995, 1997],
     [1, 1998, 1999, 1, 2000, 2001, 1, 2002],
     [1, 2003, 2004, 2005, 1, 2006, 2007, 2008],
     [2009, 2010, 2006, 2006, 2008, 2009, 2010, 2006],
     [2006, 2006, 2006, 2006, 1, 2011, 2012, 2013],
     [2014, 2015, 2016, 2011, 2011, 2011, 2011, 2011],
     [2011, 2011, 1, 2017, 2017, 2017, 1, 2011],
     [2011, 2011, 1, 2018, 2019, 2013, 2020, 2015],
     [2016, 2018, 2018, 2018, 2018, 2018, 2018, 2018],
     [1, 2021, 2022, 2023, 2024, 2025, 2021, 2021],
     [2021, 2021, 2021, 2021, 2021, 1, 2026, 2026],
     [2026, 1, 2021, 2021, 2021, 1, 2027, 2027],
     [2028, 2027, 2027, 2027, 2027, 2027, 2027, 2027],
     [2027, 1, 2027, 2027, 2028, 2029, 2027, 2027],
     [2027, 2027, 2027, 2027, 2027, 2027, 1, 2030],
     [2030, 2030, 1, 2027, 2027, 2027, 1, 2029],
     [2031, 2032, 2033, 2029, 2029, 2029, 2029, 2029],
     [2029, 2029, 2029, 1, 2034, 2034, 2034, 1],
     [2029, 2029, 2029, 1, 2018, 2019, 2018, 2018],
     [2018, 2018, 2018, 2018, 2018, 1, 2011, 2012],
     [2013, 2014, 2015, 2016, 2035, 2011, 2011, 2035],
     [2011, 2011, 2011, 2011, 2011, 1, 2011, 2012],
     [2036, 2037, 2038, 2039, 2011, 2011, 2011, 2011],
     [2011, 2011, 2011, 1, 2040, 2041, 2040, 2018],
     [2018, 2013, 2020, 2015, 2016, 2018, 2018, 2042],
     [2040, 2018, 2040, 2040, 2040, 2040, 1, 2043],
     [2044, 2043, 2021, 2021, 2023, 2024, 2025, 2021],
     [2021, 2042, 2043, 2021, 2043, 2043, 2043, 2043],
     [1, 2042, 2042, 2042, 2046, 632, 2047, 2042],
     [2042, 2042, 2045, 2045, 2042, 2042, 2045, 2042],
     [1, 2042, 2042, 2042, 2046, 632, 2047, 2042],
     [2042, 2042, 2042, 2042, 2042, 1, 2042, 2042],
     [2042, 2046, 632, 2047, 2042, 2042, 2042, 2043],
     [2043, 2042, 2042, 2043, 2042, 1, 2011, 2012],
     [2013, 2014, 2015, 2016, 2048, 2049, 2011, 2011],
     [2048, 2049, 2011, 2011, 2011, 2011, 2011, 1],
     [2011, 2012, 2050, 2051, 2052, 2053, 2011, 2011],
     [2011, 2011, 2011, 2011, 2011, 1, 2011, 2012],
     [2013, 2014, 2015, 2016, 2054, 2011, 2011, 2054],
     [2011, 2011, 2011, 2011, 2011, 1, 2011, 2012],
     [2013, 2014, 2015, 2016, 2055, 2011, 2011, 2055],
     [2011, 2011, 2011, 2011, 2011, 1, 2011, 2012],
     [2013, 2056, 2015, 2016, 2011, 2011, 2011, 2011],
     [2011, 2011, 2011, 1, 2057, 2058, 2057, 2018],
     [2018, 2013, 2020, 2015, 2016, 2018, 2018, 2059],
     [2057, 2018, 2057, 2057, 2057, 2057, 1, 2060],
     [2061, 2060, 2021, 2021, 2062, 2063, 2064, 2021],
     [2021, 2065, 2060, 2021, 2060, 2060, 2060, 2060],
     [1, 2065, 2065, 2065, 2067, 2068, 2069, 2065],
     [2065, 2065, 2066, 2066, 2065, 2065, 2066, 2065],
     [1, 2065, 2065, 2065, 2067, 2068, 2069, 2065],
     [2065, 2065, 2065, 2065, 2065, 1, 2065, 2065],
     [2065, 2067, 2068, 2069, 2065, 2065, 2065, 2060],
     [2060, 2065, 2065, 2060, 2065, 1, 2011, 2012],
     [2013, 2014, 2015, 2016, 2070, 2011, 2011, 2070],
     [2011, 2011, 2011, 2011, 2011, 1, 2011, 2012],
     [2013, 2014, 2015, 2016, 2071, 2011, 2011, 2071],
     [2011, 2011, 2011, 2011, 2011, 1, 2011, 2012],
     [2013, 2014, 2015, 2016, 2072, 2011, 2011, 2072],
     [2011, 2011, 2011, 2011, 2011, 1, 2011, 2012]]"

definition smp_indicies_12 :: "int list list" where
  "smp_indicies_12 =
    [[2013, 2014, 2015, 2016, 2073, 2011, 2011, 2073],
     [2011, 2011, 2011, 2011, 2011, 1, 2011, 2012],
     [2013, 2014, 2015, 2016, 2074, 2011, 2011, 2074],
     [2011, 2011, 2011, 2011, 2011, 1, 2011, 2012],
     [2013, 2014, 2015, 2016, 2075, 2011, 2011, 2075],
     [2011, 2011, 2011, 2011, 2011, 1, 2011, 2012],
     [2013, 2014, 2015, 2016, 2076, 2011, 2011, 2076],
     [2011, 2011, 2011, 2011, 2011, 1, 2011, 2012],
     [2013, 2014, 2015, 2016, 2077, 2011, 2011, 2077],
     [2011, 2011, 2011, 2011, 2011, 1, 2011, 2012],
     [2013, 2078, 2015, 2016, 2011, 2011, 2011, 2011],
     [2011, 2011, 2011, 1, 2079, 2080, 2079, 2018],
     [2018, 2013, 2020, 2015, 2016, 2081, 2082, 2083],
     [2084, 2018, 2018, 2085, 2081, 2082, 2083, 2084],
     [2079, 2018, 2079, 2079, 2079, 2079, 1, 2086],
     [2087, 2086, 2021, 2021, 2088, 2089, 2090, 2021],
     [2021, 2091, 2086, 2021, 2086, 2086, 2086, 2086],
     [1, 2091, 2091, 2091, 2093, 2094, 2095, 2091],
     [2091, 2091, 2092, 2092, 2091, 2091, 2092, 2091],
     [1, 2091, 2091, 2091, 2093, 2094, 2095, 2091],
     [2091, 2091, 2091, 2091, 2091, 1, 2091, 2091],
     [2091, 2093, 2094, 2095, 2091, 2091, 2091, 2086],
     [2086, 2091, 2091, 2086, 2091, 1, 2086, 2087],
     [2086, 2021, 2021, 2088, 2089, 2090, 2096, 2021],
     [2021, 2091, 2096, 2086, 2021, 2086, 2086, 2086],
     [2086, 1, 2086, 2087, 2086, 2021, 2021, 2088],
     [2089, 2090, 2097, 2021, 2021, 2091, 2097, 2086],
     [2021, 2086, 2086, 2086, 2086, 1, 2086, 2087],
     [2086, 2021, 2021, 2088, 2089, 2090, 2098, 2021],
     [2021, 2091, 2098, 2086, 2021, 2086, 2086, 2086],
     [2086, 1, 2086, 2087, 2086, 2021, 2021, 2099],
     [2100, 2101, 2021, 2021, 2091, 2086, 2021, 2086],
     [2086, 2086, 2086, 1, 2086, 2087, 2086, 2021],
     [2021, 2088, 2089, 2090, 2102, 2103, 2021, 2021],
     [2091, 2102, 2103, 2086, 2021, 2086, 2086, 2086],
     [2086, 1, 2086, 2087, 2086, 2021, 2021, 2088],
     [2089, 2090, 2104, 2021, 2021, 2091, 2104, 2086],
     [2021, 2086, 2086, 2086, 2086, 1, 2086, 2087],
     [2086, 2021, 2021, 2105, 2106, 2107, 2021, 2021],
     [2091, 2086, 2021, 2086, 2086, 2086, 2086, 1],
     [2086, 2087, 2086, 2021, 2021, 2088, 2089, 2090],
     [2108, 2021, 2021, 2091, 2108, 2086, 2021, 2086],
     [2086, 2086, 2086, 1, 2086, 2087, 2086, 2021],
     [2021, 2109, 2110, 2111, 2021, 2021, 2091, 2086],
     [2021, 2086, 2086, 2086, 2086, 1, 2086, 2087],
     [2086, 2021, 2021, 2088, 2089, 2090, 2112, 2021],
     [2021, 2091, 2112, 2086, 2021, 2086, 2086, 2086],
     [2086, 1, 2086, 2087, 2086, 2021, 2021, 2088],
     [2089, 2090, 2113, 2021, 2021, 2091, 2113, 2086],
     [2021, 2086, 2086, 2086, 2086, 1, 2086, 2087],
     [2086, 2021, 2021, 2114, 2115, 2116, 2021, 2021],
     [2091, 2086, 2021, 2086, 2086, 2086, 2086, 1],
     [2086, 2087, 2086, 2021, 2021, 2088, 2089, 2090],
     [2117, 2021, 2021, 2091, 2117, 2086, 2021, 2086],
     [2086, 2086, 2086, 1, 2086, 2087, 2086, 2021],
     [2021, 2118, 2119, 2120, 2121, 2021, 2021, 2091],
     [2121, 2086, 2021, 2086, 2086, 2086, 2086, 1],
     [2086, 2087, 2086, 2021, 2021, 2122, 2123, 2124],
     [2021, 2021, 2091, 2086, 2021, 2086, 2086, 2086],
     [2086, 1, 2003, 2004, 2005, 2002, 1, 2003],
     [2004, 2005, 2001, 1, 2003, 2004, 2005, 2125],
     [1, 2003, 2004, 2005, 1999, 1, 2126, 2003],
     [2004, 2005, 2125, 1999, 1, 2127, 2003, 2004],
     [2005, 1999, 2001, 1, 2128, 2003, 2004, 2005],
     [2001, 2002, 1, 2003, 2004, 2005, 2002, 1],
     [2129, 2130, 2131, 2132, 1987, 1987, 1, 1983],
     [2133, 1983, 1985, 1985, 1985, 1, 2134, 2135],
     [2136, 2137, 1987, 1987, 1, 1983, 2138, 1983],
     [1985, 1985, 1985, 1, 2139, 2140, 2141, 2142],
     [1987, 1987, 1, 1983, 1986, 2143, 2144, 2145],
     [2146, 1983, 1985, 1985, 1985, 1, 1983, 1986],
     [2143, 2144, 2145, 2146, 1983, 2142, 1985, 1985],
     [1, 1983, 1986, 2143, 2144, 2145, 2146, 1983],
     [2139, 1985, 1985, 1, 1983, 1986, 2147, 2143],
     [2144, 2145, 2146, 1983, 2142, 2139, 1985, 1985],
     [1, 1983, 1986, 2143, 2144, 2145, 2146, 1983],
     [2139, 1985, 1985, 1985, 1, 1983, 2138, 1983],
     [2137, 1985, 1985, 1, 1983, 2138, 1983, 2134],
     [1985, 1985, 1, 1983, 2138, 2148, 1983, 2137],
     [2134, 1985, 1985, 1, 1983, 2138, 1983, 2134],
     [1985, 1985, 1985, 1, 1983, 2133, 1983, 2132],
     [1985, 1985, 1, 1983, 2133, 1983, 2129, 1985],
     [1985, 1, 1983, 2133, 2149, 1983, 2132, 2129],
     [1985, 1985, 1, 1983, 2133, 1983, 2129, 1985],
     [1985, 1985, 1, 1983, 1984, 1983, 2150, 1985],
     [1985, 1, 1983, 1984, 1983, 2151, 1985, 1985],
     [1, 1983, 1984, 2152, 1983, 2150, 2151, 1985],
     [1985, 1, 1983, 1984, 1983, 2151, 1985, 1985],
     [1985, 1, 2154, 2153, 2153, 2153, 1, 2156],
     [2155, 2155, 2155, 1, 2156, 2157, 2157, 2157],
     [1, 2156, 2158, 2158, 2158, 1, 2156, 1],
     [2160, 2159, 2159, 2159, 1, 2162, 2161, 2161],
     [2161, 1, 2162, 2163, 2163, 2163, 1, 2162],
     [2164, 2164, 2164, 1, 2162, 1, 2166, 2165],
     [2165, 2165, 1, 2168, 2167, 2167, 2167, 1],
     [2168, 2169, 2169, 2169, 1, 2168, 2170, 2170],
     [2170, 1, 2168, 1, 2172, 2171, 2171, 2171],
     [1, 2174, 2173, 2173, 2173, 1, 2174, 2175],
     [2175, 2175, 1, 2174, 2176, 2176, 2176, 1],
     [2174, 1, 2178, 2177, 2177, 2177, 1, 2180],
     [2179, 2179, 2179, 1, 2180, 2181, 2181, 2181],
     [1, 2180, 2182, 2182, 2182, 1, 2180, 1],
     [2184, 2183, 2183, 2183, 1, 2186, 2185, 2185],
     [2185, 1, 2186, 2187, 2187, 2187, 1, 2186],
     [2188, 2188, 2188, 1, 2186, 1, 2189, 2190],
     [2191, 2193, 2192, 2194, 2194, 1, 2195, 2197],
     [2196, 2196, 2196, 1, 2198, 2199, 2200, 2201],
     [1, 2202, 1, 2203, 2204, 2205, 2206, 1],
     [2207, 1, 2208, 2209, 2210, 2211, 1, 2212],
     [1, 2213, 2214, 2215, 2216, 1, 2212, 2211],
     [1, 2212, 2208, 1, 2217, 2212, 2211, 2208],
     [1, 2212, 2208, 1, 2207, 2206, 1, 2207],
     [2203, 1, 2207, 2218, 2206, 2203, 1, 2207],
     [2203, 1, 2202, 2201, 1, 2202, 2198, 1],
     [2202, 2219, 2201, 2198, 1, 2202, 2198, 1],
     [2197, 2220, 2220, 2220, 1, 2197, 2221, 2221],
     [2221, 1, 2197, 1, 2208, 2222, 2222, 2222],
     [1, 2212, 2223, 2223, 2223, 1, 2212, 2224],
     [2224, 2224, 1, 2212, 2208, 2208, 2208, 1],
     [2195, 2197, 2225, 2196, 2196, 1, 2195, 2197],
     [2226, 2220, 2220, 1, 2195, 2197, 2221, 2221],
     [2221, 1, 2195, 2227, 2197, 2225, 2228, 2196],
     [2196, 1, 2195, 2197, 2226, 2220, 2220, 2220],
     [1, 2195, 2197, 2220, 2220, 2220, 1, 2195],
     [2197, 2228, 2196, 2196, 1, 2212, 2222, 2222],
     [2222, 1, 2197, 2196, 2196, 2196, 1, 2229],
     [2230, 2231, 2212, 2232, 2233, 2233, 1, 2195],
     [2235, 2212, 2234, 2234, 2234, 1, 2235, 2212],
     [2236, 2236, 2236, 1, 2235, 2212, 2237, 2237],
     [2237, 1, 2235, 2212, 1, 2222, 2222, 2222],
     [1, 2195, 2235, 2212, 2238, 2234, 2234, 1],
     [2195, 2235, 2212, 2239, 2236, 2236, 1, 2195],
     [2235, 2212, 2237, 2237, 2237, 1, 2195, 2240],
     [2235, 2212, 2238, 2241, 2234, 2234, 1, 2195],
     [2235, 2212, 2239, 2236, 2236, 2236, 1, 2195],
     [2235, 2212, 2236, 2236, 2236, 1, 2195, 2235],
     [2212, 2241, 2234, 2234, 1, 2235, 2212, 2234],
     [2234, 2234, 1, 2242, 2243, 2244, 2212, 2245],
     [2246, 2246, 1, 2195, 2248, 2212, 2247, 2247],
     [2247, 1, 2248, 2212, 2249, 2249, 2249, 1],
     [2248, 2212, 2250, 2250, 2250, 1, 2248, 2212],
     [1, 2229, 2230, 2231, 2232, 2233, 2233, 1],
     [2195, 2248, 2212, 2251, 2247, 2247, 1, 2195],
     [2248, 2212, 2252, 2249, 2249, 1, 2195, 2248],
     [2212, 2250, 2250, 2250, 1, 2195, 2253, 2248],
     [2212, 2251, 2254, 2247, 2247, 1, 2195, 2248],
     [2212, 2252, 2249, 2249, 2249, 1, 2195, 2248],
     [2212, 2249, 2249, 2249, 1, 2195, 2248, 2212],
     [2254, 2247, 2247, 1, 2248, 2212, 2247, 2247],
     [2247, 1, 2255, 2256, 2257, 2212, 2258, 2259]]"

definition smp_indicies_13 :: "int list list" where
  "smp_indicies_13 =
    [[2259, 1, 2195, 2261, 2212, 2260, 2260, 2260],
     [1, 2261, 2212, 2262, 2262, 2262, 1, 2261],
     [2212, 2263, 2263, 2263, 1, 2261, 2212, 1],
     [2242, 2243, 2244, 2245, 2246, 2246, 1, 2195],
     [2261, 2212, 2264, 2260, 2260, 1, 2195, 2261],
     [2212, 2265, 2262, 2262, 1, 2195, 2261, 2212],
     [2263, 2263, 2263, 1, 2195, 2266, 2261, 2212],
     [2264, 2267, 2260, 2260, 1, 2195, 2261, 2212],
     [2265, 2262, 2262, 2262, 1, 2195, 2261, 2212],
     [2262, 2262, 2262, 1, 2195, 2261, 2212, 2267],
     [2260, 2260, 1, 2261, 2212, 2260, 2260, 2260],
     [1, 2268, 2269, 2270, 2212, 2271, 2272, 2272],
     [1, 2195, 2274, 2212, 2273, 2273, 2273, 1],
     [2274, 2212, 2275, 2275, 2275, 1, 2274, 2212],
     [2276, 2276, 2276, 1, 2274, 2212, 1, 2255],
     [2256, 2257, 2258, 2259, 2259, 1, 2195, 2274],
     [2212, 2277, 2273, 2273, 1, 2195, 2274, 2212],
     [2278, 2275, 2275, 1, 2195, 2274, 2212, 2276],
     [2276, 2276, 1, 2195, 2279, 2274, 2212, 2277],
     [2280, 2273, 2273, 1, 2195, 2274, 2212, 2278],
     [2275, 2275, 2275, 1, 2195, 2274, 2212, 2275],
     [2275, 2275, 1, 2195, 2274, 2212, 2280, 2273],
     [2273, 1, 2274, 2212, 2273, 2273, 2273, 1],
     [2281, 2282, 2283, 2212, 2284, 2285, 2285, 1],
     [2195, 2287, 2212, 2286, 2286, 2286, 1, 2287],
     [2212, 2288, 2288, 2288, 1, 2287, 2212, 2289],
     [2289, 2289, 1, 2287, 2212, 1, 2268, 2269],
     [2270, 2271, 2272, 2272, 1, 2195, 2287, 2212],
     [2290, 2286, 2286, 1, 2195, 2287, 2212, 2291],
     [2288, 2288, 1, 2195, 2287, 2212, 2289, 2289],
     [2289, 1, 2195, 2292, 2287, 2212, 2290, 2293],
     [2286, 2286, 1, 2195, 2287, 2212, 2291, 2288],
     [2288, 2288, 1, 2195, 2287, 2212, 2288, 2288],
     [2288, 1, 2195, 2287, 2212, 2293, 2286, 2286],
     [1, 2287, 2212, 2286, 2286, 2286, 1, 2294],
     [1, 2295, 2296, 2297, 2212, 2298, 2299, 2299],
     [1, 2195, 2301, 2212, 2300, 2300, 2300, 1],
     [2301, 2212, 2302, 2302, 2302, 1, 2301, 2212],
     [2303, 2303, 2303, 1, 2301, 2212, 1, 2281],
     [2282, 2283, 2284, 2285, 2285, 1, 2195, 2301],
     [2212, 2304, 2300, 2300, 1, 2195, 2301, 2212],
     [2305, 2302, 2302, 1, 2195, 2301, 2212, 2303],
     [2303, 2303, 1, 2195, 2306, 2301, 2212, 2304],
     [2307, 2300, 2300, 1, 2195, 2301, 2212, 2305],
     [2302, 2302, 2302, 1, 2195, 2301, 2212, 2302],
     [2302, 2302, 1, 2195, 2301, 2212, 2307, 2300],
     [2300, 1, 2301, 2212, 2300, 2300, 2300, 1],
     [1971, 1972, 2308, 2309, 1973, 1971, 1971, 1971],
     [1974, 2308, 1971, 1971, 2310, 2310, 2310, 1],
     [1971, 1972, 2308, 1973, 1971, 1971, 1971, 1974],
     [2308, 1971, 1971, 2310, 2310, 2310, 1, 1971],
     [1972, 2308, 2311, 1973, 1971, 1971, 1971, 1974],
     [2308, 1971, 1971, 2310, 2310, 2310, 1, 1971],
     [1972, 1973, 1971, 1971, 1971, 1974, 1971, 1971],
     [1971, 2310, 2312, 2312, 1, 1971, 1972, 2313],
     [2314, 2315, 2316, 1971, 1992, 2317, 1974, 2313],
     [1971, 1971, 2312, 2312, 2312, 1, 1971, 1972],
     [2313, 1973, 1971, 1971, 1971, 1974, 2313, 1971],
     [1971, 2312, 2312, 2312, 1, 1971, 1972, 2315],
     [2316, 1971, 1992, 2317, 1974, 1971, 1971, 1971],
     [2310, 2312, 2312, 1, 1973, 1976, 2318, 2320],
     [1973, 1974, 1973, 1973, 1973, 2319, 2321, 1973],
     [1973, 1, 1973, 1976, 2322, 1973, 1974, 1973],
     [1973, 1973, 2323, 1973, 1973, 1, 1973, 1976],
     [2324, 1973, 1974, 1973, 1973, 1973, 2325, 1973],
     [1973, 1, 1973, 1976, 1973, 1973, 1974, 1973],
     [1973, 1973, 2326, 1973, 1973, 1, 1973, 1976],
     [2003, 2004, 2005, 1974, 1973, 1973, 1973, 1973],
     [1973, 1973, 1, 1973, 1976, 2003, 2004, 2005],
     [1974, 1973, 1973, 1973, 2326, 1973, 1973, 1],
     [1973, 1976, 2003, 2004, 2005, 1974, 1973, 1973],
     [1973, 2325, 1973, 1973, 1, 1973, 1976, 2003],
     [2004, 2005, 1974, 1973, 1973, 1973, 2327, 1973],
     [1973, 1, 1973, 1976, 2003, 2004, 2005, 1974],
     [1973, 1973, 1973, 2323, 1973, 1973, 1, 1973],
     [1976, 2328, 2003, 2004, 2005, 1974, 1973, 1973],
     [1973, 2327, 2323, 1973, 1973, 1, 1973, 1976],
     [2329, 2003, 2004, 2005, 1974, 1973, 1973, 1973],
     [2323, 2325, 1973, 1973, 1, 1973, 1976, 2330],
     [2003, 2004, 2005, 1974, 1973, 1973, 1973, 2325],
     [2326, 1973, 1973, 1, 1973, 1976, 2003, 2004],
     [2005, 1974, 1973, 1973, 1973, 2326, 1973, 1973],
     [1973, 1, 2331, 1971, 2332, 1971, 2333, 1971],
     [1971, 1971, 1974, 2334, 2335, 2336, 2006, 2006],
     [2331, 2334, 2335, 2336, 2331, 2331, 2331, 2331],
     [1, 2337, 1971, 2338, 1971, 2339, 2340, 2341],
     [2015, 2342, 1974, 2011, 2011, 2337, 2337, 2337],
     [2337, 2337, 1, 2343, 2343, 2343, 1, 2337],
     [2337, 2337, 1, 2339, 2344, 1973, 2011, 2011],
     [2013, 2345, 2015, 2016, 1974, 2011, 2011, 2339],
     [2339, 2339, 2339, 2339, 1, 2346, 2346, 2346],
     [1, 2339, 2339, 2339, 1, 2347, 2348, 1973],
     [2018, 2018, 2013, 2349, 2015, 2016, 1974, 2018],
     [2018, 2347, 2347, 2347, 2347, 2347, 1, 2350],
     [2351, 1973, 2021, 2021, 2023, 1973, 2024, 2025],
     [1974, 2021, 2021, 2350, 2350, 2350, 2350, 2350],
     [1, 2352, 2352, 2352, 1, 2350, 2350, 2350],
     [1, 2347, 2348, 1973, 2018, 2018, 1973, 1974],
     [2018, 2018, 2347, 2347, 2347, 2347, 2347, 1],
     [2353, 1971, 2354, 1971, 2347, 2340, 2355, 2015],
     [2342, 1974, 2018, 2018, 2353, 2353, 2353, 2353],
     [2353, 1, 2356, 1971, 2357, 1971, 2350, 2358],
     [1971, 2024, 2359, 1974, 2021, 2021, 2356, 2356],
     [2356, 2356, 2356, 1, 2360, 2360, 2360, 1],
     [2356, 2356, 2356, 1, 2361, 2361, 2362, 1971],
     [2363, 1971, 1971, 1974, 2027, 2027, 2361, 2361],
     [1971, 2361, 2361, 2361, 1, 2361, 2361, 2362],
     [1971, 2363, 1971, 2364, 1974, 2027, 2027, 2361],
     [2361, 1971, 2361, 2361, 2361, 1, 2365, 2365],
     [2365, 1, 2361, 2361, 2361, 1, 2363, 2366],
     [1973, 1973, 2027, 2027, 2367, 2027, 1974, 2027],
     [2027, 2363, 2363, 2363, 2363, 2363, 1, 2368],
     [2368, 2368, 1, 2363, 2363, 2363, 1, 2367],
     [2369, 2370, 1973, 2029, 2029, 1973, 2033, 2029],
     [1974, 2029, 2029, 2367, 2367, 2367, 2367, 2367],
     [1, 2371, 2371, 2371, 1, 2367, 2367, 2367],
     [1, 2363, 2366, 1973, 1973, 2027, 2027, 1973],
     [2027, 1974, 2027, 2027, 2363, 2363, 2363, 2363],
     [2363, 1, 2364, 1971, 2372, 2373, 1971, 2367],
     [1971, 1971, 2033, 1974, 2029, 2029, 2364, 2364],
     [2364, 2364, 2364, 1, 2374, 2374, 2374, 1],
     [2364, 2364, 2364, 1, 2353, 1971, 2354, 1971],
     [2347, 1971, 1971, 1971, 1974, 2018, 2018, 2353],
     [2353, 2353, 2353, 2353, 1, 2337, 1971, 2338],
     [1971, 2339, 2340, 2341, 2015, 2342, 1974, 2375],
     [2011, 2011, 2337, 2375, 2337, 2337, 2337, 2337],
     [1, 2337, 1971, 2338, 1971, 2339, 2376, 2377],
     [2038, 2378, 1974, 2011, 2011, 2337, 2337, 2337],
     [2337, 2337, 1, 2379, 1971, 2380, 2379, 1971],
     [2353, 2347, 2340, 2355, 2015, 2342, 1974, 2018],
     [2018, 2042, 2379, 2353, 2379, 2379, 2379, 1],
     [2381, 1971, 2382, 2381, 1971, 2356, 2350, 2358],
     [1971, 2024, 2359, 1974, 2021, 2021, 2042, 2381],
     [2356, 2381, 2381, 2381, 1, 2042, 2042, 2042],
     [2046, 632, 2047, 2042, 2042, 2042, 2383, 2383],
     [2042, 2042, 2383, 2042, 1, 2042, 2042, 2042],
     [2046, 632, 2047, 2042, 2042, 2042, 2381, 2381],
     [2042, 2042, 2381, 2042, 1, 2337, 1971, 2338],
     [1971, 2339, 2340, 2341, 2015, 2342, 1974, 2384],
     [2385, 2011, 2011, 2337, 2384, 2385, 2337, 2337],
     [2337, 2337, 1, 2337, 1971, 2338, 1971, 2339],
     [2386, 2387, 2052, 2388, 1974, 2011, 2011, 2337],
     [2337, 2337, 2337, 2337, 1, 2337, 1971, 2338],
     [1971, 2339, 2340, 2341, 2015, 2342, 1974, 2389],
     [2011, 2011, 2337, 2389, 2337, 2337, 2337, 2337],
     [1, 2337, 1971, 2338, 1971, 2339, 2340, 2341],
     [2015, 2342, 1974, 2390, 2011, 2011, 2337, 2390],
     [2337, 2337, 2337, 2337, 1, 2337, 1971, 2338],
     [1971, 2339, 2340, 2391, 2015, 2342, 1974, 2011],
     [2011, 2337, 2337, 2337, 2337, 2337, 1, 2392]]"

definition smp_indicies_14 :: "int list list" where
  "smp_indicies_14 =
    [[1971, 2393, 2392, 1971, 2353, 2347, 2340, 2355],
     [2015, 2342, 1974, 2018, 2018, 2059, 2392, 2353],
     [2392, 2392, 2392, 1, 2394, 1971, 2395, 2394],
     [1971, 2356, 2350, 2396, 1971, 2063, 2397, 1974],
     [2021, 2021, 2065, 2394, 2356, 2394, 2394, 2394],
     [1, 2065, 2065, 2065, 2067, 2068, 2069, 2065],
     [2065, 2065, 2398, 2398, 2065, 2065, 2398, 2065],
     [1, 2065, 2065, 2065, 2067, 2068, 2069, 2065],
     [2065, 2065, 2394, 2394, 2065, 2065, 2394, 2065],
     [1, 2337, 1971, 2338, 1971, 2339, 2340, 2341],
     [2015, 2342, 1974, 2399, 2011, 2011, 2337, 2399],
     [2337, 2337, 2337, 2337, 1, 2337, 1971, 2338],
     [1971, 2339, 2340, 2341, 2015, 2342, 1974, 2400],
     [2011, 2011, 2337, 2400, 2337, 2337, 2337, 2337],
     [1, 2337, 1971, 2338, 1971, 2339, 2340, 2341],
     [2015, 2342, 1974, 2401, 2011, 2011, 2337, 2401],
     [2337, 2337, 2337, 2337, 1, 2337, 1971, 2338],
     [1971, 2339, 2340, 2341, 2015, 2342, 1974, 2402],
     [2011, 2011, 2337, 2402, 2337, 2337, 2337, 2337],
     [1, 2337, 1971, 2338, 1971, 2339, 2340, 2341],
     [2015, 2342, 1974, 2403, 2011, 2011, 2337, 2403],
     [2337, 2337, 2337, 2337, 1, 2337, 1971, 2338],
     [1971, 2339, 2340, 2341, 2015, 2342, 1974, 2404],
     [2011, 2011, 2337, 2404, 2337, 2337, 2337, 2337],
     [1, 2337, 1971, 2338, 1971, 2339, 2340, 2341],
     [2015, 2342, 1974, 2405, 2011, 2011, 2337, 2405],
     [2337, 2337, 2337, 2337, 1, 2337, 1971, 2338],
     [1971, 2339, 2340, 2341, 2015, 2342, 1974, 2406],
     [2011, 2011, 2337, 2406, 2337, 2337, 2337, 2337],
     [1, 2337, 1971, 2338, 1971, 2339, 2340, 2407],
     [2015, 2342, 1974, 2011, 2011, 2337, 2337, 2337],
     [2337, 2337, 1, 2408, 1971, 2409, 2408, 1971],
     [2353, 2347, 2340, 2355, 2015, 2342, 1974, 2410],
     [2411, 2412, 2413, 2018, 2018, 2085, 2410, 2411],
     [2412, 2413, 2408, 2353, 2408, 2408, 2408, 1],
     [2414, 1971, 2415, 2414, 1971, 2356, 2350, 2416],
     [1971, 2089, 2417, 1974, 2021, 2021, 2091, 2414],
     [2356, 2414, 2414, 2414, 1, 2091, 2091, 2091],
     [2093, 2094, 2095, 2091, 2091, 2091, 2418, 2418],
     [2091, 2091, 2418, 2091, 1, 2091, 2091, 2091],
     [2093, 2094, 2095, 2091, 2091, 2091, 2414, 2414],
     [2091, 2091, 2414, 2091, 1, 2414, 1971, 2415],
     [2414, 1971, 2356, 2350, 2416, 1971, 2089, 2417],
     [1974, 2419, 2021, 2021, 2091, 2419, 2414, 2356],
     [2414, 2414, 2414, 1, 2414, 1971, 2415, 2414],
     [1971, 2356, 2350, 2416, 1971, 2089, 2417, 1974],
     [2420, 2021, 2021, 2091, 2420, 2414, 2356, 2414],
     [2414, 2414, 1, 2414, 1971, 2415, 2414, 1971],
     [2356, 2350, 2416, 1971, 2089, 2417, 1974, 2421],
     [2021, 2021, 2091, 2421, 2414, 2356, 2414, 2414],
     [2414, 1, 2414, 1971, 2415, 2414, 1971, 2356],
     [2350, 2422, 1971, 2100, 2423, 1974, 2021, 2021],
     [2091, 2414, 2356, 2414, 2414, 2414, 1, 2414],
     [1971, 2415, 2414, 1971, 2356, 2350, 2416, 1971],
     [2089, 2417, 1974, 2424, 2425, 2021, 2021, 2091],
     [2424, 2425, 2414, 2356, 2414, 2414, 2414, 1],
     [2414, 1971, 2415, 2414, 1971, 2356, 2350, 2416],
     [1971, 2089, 2417, 1974, 2426, 2021, 2021, 2091],
     [2426, 2414, 2356, 2414, 2414, 2414, 1, 2414],
     [1971, 2415, 2414, 1971, 2356, 2350, 2427, 1971],
     [2106, 2428, 1974, 2021, 2021, 2091, 2414, 2356],
     [2414, 2414, 2414, 1, 2414, 1971, 2415, 2414],
     [1971, 2356, 2350, 2416, 1971, 2089, 2417, 1974],
     [2429, 2021, 2021, 2091, 2429, 2414, 2356, 2414],
     [2414, 2414, 1, 2414, 1971, 2415, 2414, 1971],
     [2356, 2350, 2430, 1971, 2110, 2431, 1974, 2021],
     [2021, 2091, 2414, 2356, 2414, 2414, 2414, 1],
     [2414, 1971, 2415, 2414, 1971, 2356, 2350, 2416],
     [1971, 2089, 2417, 1974, 2432, 2021, 2021, 2091],
     [2432, 2414, 2356, 2414, 2414, 2414, 1, 2414],
     [1971, 2415, 2414, 1971, 2356, 2350, 2416, 1971],
     [2089, 2417, 1974, 2433, 2021, 2021, 2091, 2433],
     [2414, 2356, 2414, 2414, 2414, 1, 2414, 1971],
     [2415, 2414, 1971, 2356, 2350, 2434, 1971, 2115],
     [2435, 1974, 2021, 2021, 2091, 2414, 2356, 2414],
     [2414, 2414, 1, 2414, 1971, 2415, 2414, 1971],
     [2356, 2350, 2416, 1971, 2089, 2417, 1974, 2436],
     [2021, 2021, 2091, 2436, 2414, 2356, 2414, 2414],
     [2414, 1, 2414, 1971, 2415, 2414, 1971, 2356],
     [2350, 2437, 1971, 2119, 2438, 1974, 2439, 2021],
     [2021, 2091, 2439, 2414, 2356, 2414, 2414, 2414],
     [1, 2414, 1971, 2415, 2414, 1971, 2356, 2350],
     [2440, 1971, 2123, 2441, 1974, 2021, 2021, 2091],
     [2414, 2356, 2414, 2414, 2414, 1, 1971, 1972],
     [2442, 2443, 2444, 1973, 1971, 1971, 1971, 1974],
     [1971, 1971, 1971, 2445, 2312, 2312, 1, 1971],
     [1972, 2308, 2446, 1973, 1971, 1971, 1971, 1974],
     [2308, 1971, 1971, 2310, 2310, 2310, 1, 1971],
     [1972, 2447, 2448, 2449, 1973, 1971, 1971, 1971],
     [1974, 1971, 1971, 1971, 2450, 2312, 2312, 1],
     [1971, 1972, 2308, 2451, 1973, 1971, 1971, 1971],
     [1974, 2308, 1971, 1971, 2310, 2310, 2310, 1],
     [1971, 1972, 2452, 2453, 2454, 1973, 1971, 1971],
     [1971, 1974, 1971, 1971, 1971, 2455, 2312, 2312],
     [1, 1971, 1972, 2308, 2311, 2456, 2457, 1971],
     [2145, 2458, 1974, 2308, 1971, 1971, 2310, 2310],
     [2310, 1, 1971, 1972, 2308, 2311, 2456, 2457],
     [1971, 2145, 2458, 1974, 2308, 1971, 1971, 2455],
     [2310, 2310, 1, 1971, 1972, 2308, 2311, 2456],
     [2457, 1971, 2145, 2458, 1974, 2308, 1971, 1971],
     [2452, 2310, 2310, 1, 1971, 1972, 2308, 2311],
     [2459, 2456, 2457, 1971, 2145, 2458, 1974, 2308],
     [1971, 1971, 2455, 2452, 2310, 2310, 1, 1971],
     [1972, 2308, 2311, 2456, 2457, 1971, 2145, 2458],
     [1974, 2308, 1971, 1971, 2452, 2310, 2310, 2310],
     [1, 1971, 1972, 2308, 2451, 1973, 1971, 1971],
     [1971, 1974, 2308, 1971, 1971, 2450, 2310, 2310],
     [1, 1971, 1972, 2308, 2451, 1973, 1971, 1971],
     [1971, 1974, 2308, 1971, 1971, 2447, 2310, 2310],
     [1, 1971, 1972, 2308, 2451, 2460, 1973, 1971],
     [1971, 1971, 1974, 2308, 1971, 1971, 2450, 2447],
     [2310, 2310, 1, 1971, 1972, 2308, 2451, 1973],
     [1971, 1971, 1971, 1974, 2308, 1971, 1971, 2447],
     [2310, 2310, 2310, 1, 1971, 1972, 2308, 2446],
     [1973, 1971, 1971, 1971, 1974, 2308, 1971, 1971],
     [2445, 2310, 2310, 1, 1971, 1972, 2308, 2446],
     [1973, 1971, 1971, 1971, 1974, 2308, 1971, 1971],
     [2442, 2310, 2310, 1, 1971, 1972, 2308, 2446],
     [2461, 1973, 1971, 1971, 1971, 1974, 2308, 1971],
     [1971, 2445, 2442, 2310, 2310, 1, 1971, 1972],
     [2308, 2446, 1973, 1971, 1971, 1971, 1974, 2308],
     [1971, 1971, 2442, 2310, 2310, 2310, 1, 1971],
     [1972, 2308, 2309, 1973, 1971, 1971, 1971, 1974],
     [2308, 1971, 1971, 2462, 2310, 2310, 1, 1971],
     [1972, 2308, 2309, 1973, 1971, 1971, 1971, 1974],
     [2308, 1971, 1971, 2463, 2310, 2310, 1, 1971],
     [1972, 2308, 2309, 2464, 1973, 1971, 1971, 1971],
     [1974, 2308, 1971, 1971, 2462, 2463, 2310, 2310],
     [1, 1971, 1972, 2308, 2309, 1973, 1971, 1971],
     [1971, 1974, 2308, 1971, 1971, 2463, 2310, 2310],
     [2310, 1, 625, 2465, 625, 625, 625, 625],
     [1, 625, 626, 2466, 2466, 625, 625, 625],
     [625, 1, 625, 626, 2467, 2467, 625, 625],
     [625, 625, 1, 625, 2468, 625, 625, 625],
     [625, 1, 2469, 2469, 2471, 2470, 2470, 2469],
     [2469, 2469, 1, 2472, 2473, 2474, 2472, 2472],
     [2472, 2472, 2472, 1, 2475, 2476, 2476, 2475],
     [2475, 2475, 1, 2477, 2478, 2479, 2015, 2477],
     [2477, 2477, 1, 2480, 2481, 2480, 2480, 2480],
     [2480, 2480, 2480, 2480, 1, 2482, 2483, 2484],
     [2024, 2482, 2482, 2482, 2482, 2482, 2482, 2482],
     [1, 2485, 2485, 2485, 1, 2482, 2482, 2482],
     [1, 2477, 2478, 2479, 2015, 2486, 2486, 2477],
     [2477, 2477, 1, 2477, 2478, 2479, 2015, 2487],
     [2487, 2477, 2477, 2477, 1, 2477, 2478, 2479],
     [2015, 2488, 2488, 2477, 2477, 2477, 1, 2477],
     [2478, 2479, 2015, 2489, 2489, 2477, 2477, 2477],
     [1, 2490, 2478, 2479, 2015, 2477, 2477, 2477],
     [1, 2477, 2478, 2479, 2015, 2491, 2491, 2477],
     [2477, 2477, 1, 2477, 2478, 2479, 2015, 2492]]"

definition smp_indicies_15 :: "int list list" where
  "smp_indicies_15 =
    [[2492, 2477, 2477, 2477, 1, 2477, 2478, 2479],
     [2015, 2493, 2493, 2477, 2477, 2477, 1, 2477],
     [2478, 2479, 2015, 2494, 2494, 2477, 2477, 2477],
     [1, 2477, 2478, 2479, 2015, 2495, 2495, 2477],
     [2477, 2477, 1, 2477, 2478, 2479, 2015, 2496],
     [2496, 2477, 2477, 2477, 1, 2477, 2478, 2479],
     [2015, 2497, 2497, 2477, 2477, 2477, 1, 2477],
     [2478, 2498, 2015, 2477, 2477, 2477, 1, 2480],
     [2481, 2499, 2480, 2480, 2480, 2480, 2480, 2480],
     [2480, 2500, 2501, 2501, 1, 2482, 2483, 2482],
     [2482, 2484, 2024, 2482, 2482, 2482, 2482, 2502],
     [2482, 2502, 2503, 2482, 2482, 1, 2482, 2483],
     [2482, 2482, 2504, 2505, 2482, 2482, 2482, 2482],
     [2503, 2482, 2503, 2482, 2482, 1, 2482, 2483],
     [2506, 2507, 2482, 2482, 2484, 2024, 2482, 2482],
     [2506, 2482, 2482, 2508, 2508, 2508, 1, 2482],
     [2483, 2506, 2482, 2484, 2024, 2482, 2482, 2506],
     [2482, 2482, 2482, 2508, 2508, 2508, 1, 2482],
     [2483, 2482, 2484, 2024, 2482, 2482, 2482, 2482],
     [2482, 2482, 2508, 2509, 2509, 1, 2482, 2483],
     [2510, 2511, 2482, 2482, 2504, 2505, 2482, 2482],
     [2510, 2482, 2482, 2509, 2509, 2509, 1, 2482],
     [2483, 2510, 2482, 2484, 2024, 2482, 2482, 2510],
     [2482, 2482, 2482, 2509, 2509, 2509, 1, 2482],
     [2483, 2482, 2504, 2505, 2482, 2482, 2482, 2482],
     [2482, 2482, 2508, 2509, 2509, 1, 2472, 2472],
     [2512, 2512, 2472, 2472, 2472, 1, 2513, 2513],
     [2514, 1, 2473, 2474, 2514, 2514, 2514, 1],
     [2515, 2516, 2515, 2517, 2517, 2517, 2518, 2517],
     [2517, 2517, 2517, 2517, 2517, 1, 2519, 2520],
     [2519, 2517, 2517, 2517, 621, 2517, 2517, 2517],
     [2517, 2517, 2517, 1, 2521, 1, 2522, 2522],
     [1, 2522, 2522, 2517, 2517, 2517, 621, 2517],
     [2517, 2517, 2517, 2517, 2517, 1, 2528, 2529],
     [2530, 2531, 2523, 2524, 2525, 2526, 2527, 2528],
     [1, 2528, 1, 2523, 1, 2524, 1, 2525],
     [1, 2526, 1, 2532, 1, 2528, 2528, 1],
     [2533, 2534, 2533, 2518, 1, 2535, 2536, 2535],
     [621, 1, 2528, 2528, 2528, 1, 2515, 2516],
     [2515, 2517, 2517, 2517, 2517, 2537, 2538, 2518],
     [2517, 2537, 2537, 2537, 2517, 2537, 1, 2539],
     [2540, 2539, 2541, 2542, 2543, 2544, 2545, 2546],
     [2541, 2545, 2547, 2541, 2541, 2541, 2541, 2541],
     [2541, 1, 2539, 2540, 2539, 2541, 2542, 2543],
     [2548, 2546, 2541, 2549, 2541, 2541, 2541, 2541],
     [2541, 2541, 1, 2542, 2550, 2551, 2542, 2552],
     [2542, 2542, 2542, 2542, 2542, 2542, 1, 2553],
     [2553, 2553, 1, 2542, 2542, 2542, 1, 2551],
     [2554, 2551, 2552, 2551, 2551, 2551, 2551, 2551],
     [2551, 2551, 1, 2555, 2555, 2555, 1, 2551],
     [2551, 2551, 1, 2556, 2557, 2558, 2547, 2559],
     [2560, 2560, 1, 2561, 2562, 2561, 2563, 2563],
     [2563, 1, 2561, 2561, 2563, 2563, 2563, 1],
     [2561, 2564, 2561, 2563, 2563, 2563, 1, 2563],
     [2560, 2560, 1, 2539, 2540, 2539, 2565, 2566],
     [2567, 2546, 2565, 2560, 2560, 2560, 1, 2565],
     [2565, 2560, 2560, 2560, 1, 2539, 2540, 2539],
     [2567, 2546, 2563, 2560, 2560, 1, 2568, 2570],
     [2569, 2571, 1, 2572, 2573, 1, 2574, 2575],
     [1, 2576, 1, 2539, 2540, 2539, 2546, 1],
     [2539, 2540, 2539, 2546, 2576, 1, 2539, 2540],
     [2539, 2546, 2575, 1, 2539, 2540, 2539, 2546],
     [2571, 1, 2539, 2540, 2539, 2546, 2573, 1],
     [2539, 2540, 2539, 2577, 2546, 2571, 2573, 1],
     [2539, 2540, 2539, 2578, 2546, 2573, 2575, 1],
     [2539, 2540, 2539, 2579, 2546, 2575, 2576, 1],
     [2539, 2540, 2539, 2546, 2576, 1, 2580, 2581],
     [2582, 2583, 2560, 2560, 1, 2561, 2584, 2561],
     [2563, 2563, 2563, 1, 2585, 2586, 2587, 2588],
     [2560, 2560, 1, 2561, 2589, 2561, 2563, 2563],
     [2563, 1, 2590, 2591, 2592, 2593, 2560, 2560],
     [1, 2539, 2540, 2539, 2561, 2564, 2567, 2546],
     [2561, 2563, 2563, 2563, 1, 2539, 2540, 2539],
     [2561, 2564, 2567, 2546, 2561, 2593, 2563, 2563],
     [1, 2539, 2540, 2539, 2561, 2564, 2567, 2546],
     [2561, 2590, 2563, 2563, 1, 2539, 2540, 2539],
     [2561, 2564, 2594, 2567, 2546, 2561, 2593, 2590],
     [2563, 2563, 1, 2539, 2540, 2539, 2561, 2564],
     [2567, 2546, 2561, 2590, 2563, 2563, 2563, 1],
     [2561, 2589, 2561, 2588, 2563, 2563, 1, 2561],
     [2589, 2561, 2585, 2563, 2563, 1, 2561, 2589],
     [2595, 2561, 2588, 2585, 2563, 2563, 1, 2561],
     [2589, 2561, 2585, 2563, 2563, 2563, 1, 2561],
     [2584, 2561, 2583, 2563, 2563, 1, 2561, 2584],
     [2561, 2580, 2563, 2563, 1, 2561, 2584, 2596],
     [2561, 2583, 2580, 2563, 2563, 1, 2561, 2584],
     [2561, 2580, 2563, 2563, 2563, 1, 2561, 2562],
     [2561, 2559, 2563, 2563, 1, 2561, 2562, 2561],
     [2556, 2563, 2563, 1, 2561, 2562, 2597, 2561],
     [2559, 2556, 2563, 2563, 1, 2561, 2562, 2561],
     [2556, 2563, 2563, 2563, 1, 2599, 2598, 2598],
     [2598, 1, 2601, 2600, 2600, 2600, 1, 2601],
     [2602, 2602, 2602, 1, 2601, 2603, 2603, 2603],
     [1, 2601, 1, 2605, 2604, 2604, 2604, 1],
     [2607, 2606, 2606, 2606, 1, 2607, 2608, 2608],
     [2608, 1, 2607, 2609, 2609, 2609, 1, 2607],
     [1, 2611, 2610, 2610, 2610, 1, 2613, 2612],
     [2612, 2612, 1, 2613, 2614, 2614, 2614, 1],
     [2613, 2615, 2615, 2615, 1, 2613, 1, 2617],
     [2616, 2616, 2616, 1, 2619, 2618, 2618, 2618],
     [1, 2619, 2620, 2620, 2620, 1, 2619, 2621],
     [2621, 2621, 1, 2619, 1, 2623, 2622, 2622],
     [2622, 1, 2625, 2624, 2624, 2624, 1, 2625],
     [2626, 2626, 2626, 1, 2625, 2627, 2627, 2627],
     [1, 2625, 1, 2629, 2628, 2628, 2628, 1],
     [2631, 2630, 2630, 2630, 1, 2631, 2632, 2632],
     [2632, 1, 2631, 2633, 2633, 2633, 1, 2631],
     [1, 2634, 2635, 2636, 2638, 2637, 2639, 2639],
     [1, 2640, 2642, 2641, 2641, 2641, 1, 2643],
     [2644, 2645, 2646, 1, 2647, 1, 2648, 2649],
     [2650, 2651, 1, 2652, 1, 2653, 2654, 2655],
     [2656, 1, 2657, 1, 2539, 2540, 2539, 2567],
     [2546, 1, 2657, 2656, 1, 2657, 2653, 1],
     [2658, 2657, 2656, 2653, 1, 2657, 2653, 1],
     [2652, 2651, 1, 2652, 2648, 1, 2652, 2659],
     [2651, 2648, 1, 2652, 2648, 1, 2647, 2646],
     [1, 2647, 2643, 1, 2647, 2660, 2646, 2643],
     [1, 2647, 2643, 1, 2642, 2661, 2661, 2661],
     [1, 2642, 2662, 2662, 2662, 1, 2642, 1],
     [2653, 2663, 2663, 2663, 1, 2657, 2664, 2664],
     [2664, 1, 2657, 2665, 2665, 2665, 1, 2657],
     [2653, 2653, 2653, 1, 2640, 2642, 2666, 2641],
     [2641, 1, 2640, 2642, 2667, 2661, 2661, 1],
     [2640, 2642, 2662, 2662, 2662, 1, 2640, 2668],
     [2642, 2666, 2669, 2641, 2641, 1, 2640, 2642],
     [2667, 2661, 2661, 2661, 1, 2640, 2642, 2661],
     [2661, 2661, 1, 2640, 2642, 2669, 2641, 2641],
     [1, 2657, 2663, 2663, 2663, 1, 2642, 2641],
     [2641, 2641, 1, 2670, 2671, 2672, 2657, 2673],
     [2674, 2674, 1, 2640, 2676, 2657, 2675, 2675],
     [2675, 1, 2676, 2657, 2677, 2677, 2677, 1],
     [2676, 2657, 2678, 2678, 2678, 1, 2676, 2657],
     [1, 2663, 2663, 2663, 1, 2640, 2676, 2657],
     [2679, 2675, 2675, 1, 2640, 2676, 2657, 2680],
     [2677, 2677, 1, 2640, 2676, 2657, 2678, 2678],
     [2678, 1, 2640, 2681, 2676, 2657, 2679, 2682],
     [2675, 2675, 1, 2640, 2676, 2657, 2680, 2677],
     [2677, 2677, 1, 2640, 2676, 2657, 2677, 2677],
     [2677, 1, 2640, 2676, 2657, 2682, 2675, 2675],
     [1, 2676, 2657, 2675, 2675, 2675, 1, 2683],
     [2684, 2685, 2657, 2686, 2687, 2687, 1, 2640],
     [2689, 2657, 2688, 2688, 2688, 1, 2689, 2657],
     [2690, 2690, 2690, 1, 2689, 2657, 2691, 2691],
     [2691, 1, 2689, 2657, 1, 2670, 2671, 2672],
     [2673, 2674, 2674, 1, 2640, 2689, 2657, 2692],
     [2688, 2688, 1, 2640, 2689, 2657, 2693, 2690],
     [2690, 1, 2640, 2689, 2657, 2691, 2691, 2691],
     [1, 2640, 2694, 2689, 2657, 2692, 2695, 2688],
     [2688, 1, 2640, 2689, 2657, 2693, 2690, 2690],
     [2690, 1, 2640, 2689, 2657, 2690, 2690, 2690]]"

definition smp_indicies_16 :: "int list list" where
  "smp_indicies_16 =
    [[1, 2640, 2689, 2657, 2695, 2688, 2688, 1],
     [2689, 2657, 2688, 2688, 2688, 1, 2696, 2697],
     [2698, 2657, 2699, 2700, 2700, 1, 2640, 2702],
     [2657, 2701, 2701, 2701, 1, 2702, 2657, 2703],
     [2703, 2703, 1, 2702, 2657, 2704, 2704, 2704],
     [1, 2702, 2657, 1, 2683, 2684, 2685, 2686],
     [2687, 2687, 1, 2640, 2702, 2657, 2705, 2701],
     [2701, 1, 2640, 2702, 2657, 2706, 2703, 2703],
     [1, 2640, 2702, 2657, 2704, 2704, 2704, 1],
     [2640, 2707, 2702, 2657, 2705, 2708, 2701, 2701],
     [1, 2640, 2702, 2657, 2706, 2703, 2703, 2703],
     [1, 2640, 2702, 2657, 2703, 2703, 2703, 1],
     [2640, 2702, 2657, 2708, 2701, 2701, 1, 2702],
     [2657, 2701, 2701, 2701, 1, 2709, 2710, 2711],
     [2657, 2712, 2713, 2713, 1, 2640, 2715, 2657],
     [2714, 2714, 2714, 1, 2715, 2657, 2716, 2716],
     [2716, 1, 2715, 2657, 2717, 2717, 2717, 1],
     [2715, 2657, 1, 2696, 2697, 2698, 2699, 2700],
     [2700, 1, 2640, 2715, 2657, 2718, 2714, 2714],
     [1, 2640, 2715, 2657, 2719, 2716, 2716, 1],
     [2640, 2715, 2657, 2717, 2717, 2717, 1, 2640],
     [2720, 2715, 2657, 2718, 2721, 2714, 2714, 1],
     [2640, 2715, 2657, 2719, 2716, 2716, 2716, 1],
     [2640, 2715, 2657, 2716, 2716, 2716, 1, 2640],
     [2715, 2657, 2721, 2714, 2714, 1, 2715, 2657],
     [2714, 2714, 2714, 1, 2722, 2723, 2724, 2657],
     [2725, 2726, 2726, 1, 2640, 2728, 2657, 2727],
     [2727, 2727, 1, 2728, 2657, 2729, 2729, 2729],
     [1, 2728, 2657, 2730, 2730, 2730, 1, 2728],
     [2657, 1, 2709, 2710, 2711, 2712, 2713, 2713],
     [1, 2640, 2728, 2657, 2731, 2727, 2727, 1],
     [2640, 2728, 2657, 2732, 2729, 2729, 1, 2640],
     [2728, 2657, 2730, 2730, 2730, 1, 2640, 2733],
     [2728, 2657, 2731, 2734, 2727, 2727, 1, 2640],
     [2728, 2657, 2732, 2729, 2729, 2729, 1, 2640],
     [2728, 2657, 2729, 2729, 2729, 1, 2640, 2728],
     [2657, 2734, 2727, 2727, 1, 2728, 2657, 2727],
     [2727, 2727, 1, 2735, 1, 2736, 2737, 2738],
     [2657, 2739, 2740, 2740, 1, 2640, 2742, 2657],
     [2741, 2741, 2741, 1, 2742, 2657, 2743, 2743],
     [2743, 1, 2742, 2657, 2744, 2744, 2744, 1],
     [2742, 2657, 1, 2722, 2723, 2724, 2725, 2726],
     [2726, 1, 2640, 2742, 2657, 2745, 2741, 2741],
     [1, 2640, 2742, 2657, 2746, 2743, 2743, 1],
     [2640, 2742, 2657, 2744, 2744, 2744, 1, 2640],
     [2747, 2742, 2657, 2745, 2748, 2741, 2741, 1],
     [2640, 2742, 2657, 2746, 2743, 2743, 2743, 1],
     [2640, 2742, 2657, 2743, 2743, 2743, 1, 2640],
     [2742, 2657, 2748, 2741, 2741, 1, 2742, 2657],
     [2741, 2741, 2741, 1, 2749, 2749, 2749, 1],
     [2541, 2541, 2541, 1, 2539, 2540, 2539, 2548],
     [2750, 2545, 2545, 2546, 2548, 2549, 2548, 2548],
     [2548, 2548, 2548, 2548, 1, 2751, 2751, 2751],
     [1, 2548, 2548, 2548, 1, 2539, 2540, 2539],
     [2545, 2752, 2546, 2545, 2545, 2545, 2545, 2545],
     [2545, 2545, 1, 2753, 2753, 2753, 1, 2545],
     [2545, 2545, 1, 2539, 2540, 2539, 2545, 2752],
     [2546, 2545, 2547, 2545, 2545, 2545, 2545, 2545],
     [2545, 1, 2539, 2540, 2539, 2541, 2542, 2543],
     [2754, 2548, 2546, 2541, 2549, 2541, 2541, 2541],
     [2541, 2541, 2541, 1, 2539, 2540, 2539, 2755],
     [2756, 2757, 2548, 2546, 2755, 2549, 2758, 2755],
     [2755, 2755, 2755, 2755, 2755, 1, 2539, 2540],
     [2539, 2755, 2756, 2757, 2759, 2546, 2755, 2760],
     [2755, 2755, 2755, 2755, 2755, 2755, 1, 2756],
     [2761, 2762, 2756, 2763, 2756, 2756, 2756, 2756],
     [2756, 2756, 1, 2764, 2764, 2764, 1, 2756],
     [2756, 2756, 1, 2762, 2765, 2762, 2763, 2762],
     [2762, 2762, 2762, 2762, 2762, 2762, 1, 2766],
     [2766, 2766, 1, 2762, 2762, 2762, 1, 2767],
     [2768, 2769, 2758, 2770, 2771, 2771, 1, 2772],
     [2773, 2772, 2774, 2774, 2774, 1, 2772, 2772],
     [2774, 2774, 2774, 1, 2772, 2775, 2772, 2774],
     [2774, 2774, 1, 2774, 2771, 2771, 1, 2539],
     [2540, 2539, 2776, 2777, 2545, 2778, 2546, 2776],
     [2771, 2771, 2771, 1, 2776, 2776, 2771, 2771],
     [2771, 1, 2539, 2540, 2539, 2545, 2778, 2546],
     [2774, 2771, 2771, 1, 2779, 2781, 2780, 2782],
     [1, 2783, 2784, 1, 2785, 2786, 1, 2787],
     [1, 2539, 2540, 2539, 2545, 2546, 1, 2539],
     [2540, 2539, 2545, 2546, 2787, 1, 2539, 2540],
     [2539, 2545, 2546, 2786, 1, 2539, 2540, 2539],
     [2545, 2546, 2782, 1, 2539, 2540, 2539, 2545],
     [2546, 2784, 1, 2539, 2540, 2539, 2545, 2788],
     [2546, 2782, 2784, 1, 2539, 2540, 2539, 2545],
     [2789, 2546, 2784, 2786, 1, 2539, 2540, 2539],
     [2545, 2790, 2546, 2786, 2787, 1, 2539, 2540],
     [2539, 2545, 2546, 2787, 1, 2791, 2792, 2793],
     [2794, 2771, 2771, 1, 2772, 2795, 2772, 2774],
     [2774, 2774, 1, 2796, 2797, 2798, 2799, 2771],
     [2771, 1, 2772, 2800, 2772, 2774, 2774, 2774],
     [1, 2801, 2802, 2803, 2804, 2771, 2771, 1],
     [2539, 2540, 2539, 2772, 2775, 2545, 2778, 2546],
     [2772, 2774, 2774, 2774, 1, 2539, 2540, 2539],
     [2772, 2775, 2545, 2778, 2546, 2772, 2804, 2774],
     [2774, 1, 2539, 2540, 2539, 2772, 2775, 2545],
     [2778, 2546, 2772, 2801, 2774, 2774, 1, 2539],
     [2540, 2539, 2772, 2775, 2545, 2805, 2778, 2546],
     [2772, 2804, 2801, 2774, 2774, 1, 2539, 2540],
     [2539, 2772, 2775, 2545, 2778, 2546, 2772, 2801],
     [2774, 2774, 2774, 1, 2772, 2800, 2772, 2799],
     [2774, 2774, 1, 2772, 2800, 2772, 2796, 2774],
     [2774, 1, 2772, 2800, 2806, 2772, 2799, 2796],
     [2774, 2774, 1, 2772, 2800, 2772, 2796, 2774],
     [2774, 2774, 1, 2772, 2795, 2772, 2794, 2774],
     [2774, 1, 2772, 2795, 2772, 2791, 2774, 2774],
     [1, 2772, 2795, 2807, 2772, 2794, 2791, 2774],
     [2774, 1, 2772, 2795, 2772, 2791, 2774, 2774],
     [2774, 1, 2772, 2773, 2772, 2770, 2774, 2774],
     [1, 2772, 2773, 2772, 2767, 2774, 2774, 1],
     [2772, 2773, 2808, 2772, 2770, 2767, 2774, 2774],
     [1, 2772, 2773, 2772, 2767, 2774, 2774, 2774],
     [1, 2810, 2809, 2809, 2809, 1, 2812, 2811],
     [2811, 2811, 1, 2812, 2813, 2813, 2813, 1],
     [2812, 2814, 2814, 2814, 1, 2812, 1, 2816],
     [2815, 2815, 2815, 1, 2818, 2817, 2817, 2817],
     [1, 2818, 2819, 2819, 2819, 1, 2818, 2820],
     [2820, 2820, 1, 2818, 1, 2822, 2821, 2821],
     [2821, 1, 2824, 2823, 2823, 2823, 1, 2824],
     [2825, 2825, 2825, 1, 2824, 2826, 2826, 2826],
     [1, 2824, 1, 2828, 2827, 2827, 2827, 1],
     [2830, 2829, 2829, 2829, 1, 2830, 2831, 2831],
     [2831, 1, 2830, 2832, 2832, 2832, 1, 2830],
     [1, 2834, 2833, 2833, 2833, 1, 2836, 2835],
     [2835, 2835, 1, 2836, 2837, 2837, 2837, 1],
     [2836, 2838, 2838, 2838, 1, 2836, 1, 2840],
     [2839, 2839, 2839, 1, 2842, 2841, 2841, 2841],
     [1, 2842, 2843, 2843, 2843, 1, 2842, 2844],
     [2844, 2844, 1, 2842, 1, 2845, 2846, 2847],
     [2849, 2848, 2850, 2850, 1, 2851, 2853, 2852],
     [2852, 2852, 1, 2854, 2855, 2856, 2857, 1],
     [2858, 1, 2859, 2860, 2861, 2862, 1, 2863],
     [1, 2864, 2865, 2866, 2867, 1, 2868, 1],
     [2539, 2540, 2539, 2545, 2778, 2546, 1, 2868],
     [2867, 1, 2868, 2864, 1, 2869, 2868, 2867],
     [2864, 1, 2868, 2864, 1, 2863, 2862, 1],
     [2863, 2859, 1, 2863, 2870, 2862, 2859, 1],
     [2863, 2859, 1, 2858, 2857, 1, 2858, 2854],
     [1, 2858, 2871, 2857, 2854, 1, 2858, 2854],
     [1, 2853, 2872, 2872, 2872, 1, 2853, 2873],
     [2873, 2873, 1, 2853, 1, 2864, 2874, 2874],
     [2874, 1, 2868, 2875, 2875, 2875, 1, 2868],
     [2876, 2876, 2876, 1, 2868, 2864, 2864, 2864],
     [1, 2851, 2853, 2877, 2852, 2852, 1, 2851],
     [2853, 2878, 2872, 2872, 1, 2851, 2853, 2873],
     [2873, 2873, 1, 2851, 2879, 2853, 2877, 2880],
     [2852, 2852, 1, 2851, 2853, 2878, 2872, 2872],
     [2872, 1, 2851, 2853, 2872, 2872, 2872, 1],
     [2851, 2853, 2880, 2852, 2852, 1, 2868, 2874],
     [2874, 2874, 1, 2853, 2852, 2852, 2852, 1]]"

definition smp_indicies_17 :: "int list list" where
  "smp_indicies_17 =
    [[2881, 2882, 2883, 2868, 2884, 2885, 2885, 1],
     [2851, 2887, 2868, 2886, 2886, 2886, 1, 2887],
     [2868, 2888, 2888, 2888, 1, 2887, 2868, 2889],
     [2889, 2889, 1, 2887, 2868, 1, 2874, 2874],
     [2874, 1, 2851, 2887, 2868, 2890, 2886, 2886],
     [1, 2851, 2887, 2868, 2891, 2888, 2888, 1],
     [2851, 2887, 2868, 2889, 2889, 2889, 1, 2851],
     [2892, 2887, 2868, 2890, 2893, 2886, 2886, 1],
     [2851, 2887, 2868, 2891, 2888, 2888, 2888, 1],
     [2851, 2887, 2868, 2888, 2888, 2888, 1, 2851],
     [2887, 2868, 2893, 2886, 2886, 1, 2887, 2868],
     [2886, 2886, 2886, 1, 2894, 2895, 2896, 2868],
     [2897, 2898, 2898, 1, 2851, 2900, 2868, 2899],
     [2899, 2899, 1, 2900, 2868, 2901, 2901, 2901],
     [1, 2900, 2868, 2902, 2902, 2902, 1, 2900],
     [2868, 1, 2881, 2882, 2883, 2884, 2885, 2885],
     [1, 2851, 2900, 2868, 2903, 2899, 2899, 1],
     [2851, 2900, 2868, 2904, 2901, 2901, 1, 2851],
     [2900, 2868, 2902, 2902, 2902, 1, 2851, 2905],
     [2900, 2868, 2903, 2906, 2899, 2899, 1, 2851],
     [2900, 2868, 2904, 2901, 2901, 2901, 1, 2851],
     [2900, 2868, 2901, 2901, 2901, 1, 2851, 2900],
     [2868, 2906, 2899, 2899, 1, 2900, 2868, 2899],
     [2899, 2899, 1, 2907, 2908, 2909, 2868, 2910],
     [2911, 2911, 1, 2851, 2913, 2868, 2912, 2912],
     [2912, 1, 2913, 2868, 2914, 2914, 2914, 1],
     [2913, 2868, 2915, 2915, 2915, 1, 2913, 2868],
     [1, 2894, 2895, 2896, 2897, 2898, 2898, 1],
     [2851, 2913, 2868, 2916, 2912, 2912, 1, 2851],
     [2913, 2868, 2917, 2914, 2914, 1, 2851, 2913],
     [2868, 2915, 2915, 2915, 1, 2851, 2918, 2913],
     [2868, 2916, 2919, 2912, 2912, 1, 2851, 2913],
     [2868, 2917, 2914, 2914, 2914, 1, 2851, 2913],
     [2868, 2914, 2914, 2914, 1, 2851, 2913, 2868],
     [2919, 2912, 2912, 1, 2913, 2868, 2912, 2912],
     [2912, 1, 2920, 2921, 2922, 2868, 2923, 2924],
     [2924, 1, 2851, 2926, 2868, 2925, 2925, 2925],
     [1, 2926, 2868, 2927, 2927, 2927, 1, 2926],
     [2868, 2928, 2928, 2928, 1, 2926, 2868, 1],
     [2907, 2908, 2909, 2910, 2911, 2911, 1, 2851],
     [2926, 2868, 2929, 2925, 2925, 1, 2851, 2926],
     [2868, 2930, 2927, 2927, 1, 2851, 2926, 2868],
     [2928, 2928, 2928, 1, 2851, 2931, 2926, 2868],
     [2929, 2932, 2925, 2925, 1, 2851, 2926, 2868],
     [2930, 2927, 2927, 2927, 1, 2851, 2926, 2868],
     [2927, 2927, 2927, 1, 2851, 2926, 2868, 2932],
     [2925, 2925, 1, 2926, 2868, 2925, 2925, 2925],
     [1, 2933, 2934, 2935, 2868, 2936, 2937, 2937],
     [1, 2851, 2939, 2868, 2938, 2938, 2938, 1],
     [2939, 2868, 2940, 2940, 2940, 1, 2939, 2868],
     [2941, 2941, 2941, 1, 2939, 2868, 1, 2920],
     [2921, 2922, 2923, 2924, 2924, 1, 2851, 2939],
     [2868, 2942, 2938, 2938, 1, 2851, 2939, 2868],
     [2943, 2940, 2940, 1, 2851, 2939, 2868, 2941],
     [2941, 2941, 1, 2851, 2944, 2939, 2868, 2942],
     [2945, 2938, 2938, 1, 2851, 2939, 2868, 2943],
     [2940, 2940, 2940, 1, 2851, 2939, 2868, 2940],
     [2940, 2940, 1, 2851, 2939, 2868, 2945, 2938],
     [2938, 1, 2939, 2868, 2938, 2938, 2938, 1],
     [2946, 1, 2947, 2948, 2949, 2868, 2950, 2951],
     [2951, 1, 2851, 2953, 2868, 2952, 2952, 2952],
     [1, 2953, 2868, 2954, 2954, 2954, 1, 2953],
     [2868, 2955, 2955, 2955, 1, 2953, 2868, 1],
     [2933, 2934, 2935, 2936, 2937, 2937, 1, 2851],
     [2953, 2868, 2956, 2952, 2952, 1, 2851, 2953],
     [2868, 2957, 2954, 2954, 1, 2851, 2953, 2868],
     [2955, 2955, 2955, 1, 2851, 2958, 2953, 2868],
     [2956, 2959, 2952, 2952, 1, 2851, 2953, 2868],
     [2957, 2954, 2954, 2954, 1, 2851, 2953, 2868],
     [2954, 2954, 2954, 1, 2851, 2953, 2868, 2959],
     [2952, 2952, 1, 2953, 2868, 2952, 2952, 2952],
     [1, 2960, 2960, 2960, 1, 2755, 2755, 2755],
     [1, 2539, 2540, 2539, 2759, 2961, 2545, 2545],
     [2546, 2759, 2760, 2759, 2759, 2759, 2759, 2759],
     [2759, 1, 2962, 2962, 2962, 1, 2759, 2759],
     [2759, 1, 2539, 2540, 2539, 2545, 2752, 2546],
     [2545, 2758, 2545, 2545, 2545, 2545, 2545, 2545],
     [1, 2515, 2516, 2515, 2517, 2517, 2517, 2517],
     [2537, 2538, 2518, 2963, 2963, 2517, 2537, 2537],
     [2537, 2517, 2537, 1, 2515, 2516, 2515, 2517],
     [2517, 2517, 2517, 2537, 2538, 2518, 2964, 2964],
     [2517, 2537, 2537, 2537, 2517, 2537, 1, 2515],
     [2516, 2515, 2517, 2517, 2517, 2517, 2537, 2965],
     [2518, 2966, 2966, 2517, 2537, 2537, 2537, 2517],
     [2537, 1, 2967, 2968, 2969, 2970, 2971, 2967],
     [2974, 2967, 2967, 2967, 2967, 2972, 2973, 2973],
     [1, 2975, 2976, 2977, 2975, 2978, 2975, 2975],
     [2975, 2975, 2975, 2975, 1, 2979, 2979, 2979],
     [1, 2975, 2975, 2975, 1, 2977, 2980, 2977],
     [2978, 2977, 2977, 2977, 2977, 2977, 2977, 2977],
     [1, 2981, 2981, 2981, 1, 2977, 2977, 2977],
     [1, 2982, 2983, 2984, 2974, 2985, 2986, 2986],
     [1, 2987, 2988, 2987, 2989, 2989, 2989, 1],
     [2987, 2987, 2989, 2989, 2989, 1, 2987, 2990],
     [2987, 2989, 2989, 2989, 1, 2989, 2991, 2991],
     [1, 2992, 2993, 2992, 2994, 2995, 2996, 2997],
     [2994, 2991, 2991, 2991, 1, 2994, 2994, 2991],
     [2991, 2991, 1, 2992, 2993, 2992, 2996, 2997],
     [2989, 2991, 2991, 1, 2998, 3000, 2999, 3001],
     [1, 3002, 3003, 1, 3004, 3005, 1, 3006],
     [1, 3007, 3008, 3007, 3009, 1, 3007, 3008],
     [3007, 3009, 3006, 1, 3007, 3008, 3007, 3009],
     [3005, 1, 3007, 3008, 3007, 3009, 3010, 1],
     [3007, 3008, 3007, 3009, 3003, 1, 3007, 3008],
     [3007, 3011, 3009, 3010, 3003, 1, 3007, 3008],
     [3007, 3012, 3009, 3003, 3005, 1, 3007, 3008],
     [3007, 3013, 3009, 3005, 3006, 1, 3007, 3008],
     [3007, 3009, 3006, 1, 3014, 3015, 3016, 3017],
     [2991, 2991, 1, 2987, 3018, 2987, 2989, 2989],
     [2989, 1, 3019, 3020, 3021, 3022, 2991, 2991],
     [1, 2987, 3023, 2987, 2989, 2989, 2989, 1],
     [3024, 3025, 3026, 3027, 2991, 2991, 1, 3028],
     [3029, 3028, 2987, 2990, 3030, 3031, 2987, 2989],
     [2989, 2989, 1, 3028, 3029, 3028, 2987, 2990],
     [3030, 3031, 2987, 3027, 2989, 2989, 1, 3028],
     [3029, 3028, 2987, 2990, 3030, 3031, 2987, 3024],
     [2989, 2989, 1, 3028, 3029, 3028, 2987, 2990],
     [3032, 3030, 3031, 2987, 3027, 3024, 2989, 2989],
     [1, 3028, 3029, 3028, 2987, 2990, 3030, 3031],
     [2987, 3024, 2989, 2989, 2989, 1, 2987, 3023],
     [2987, 3022, 2989, 2989, 1, 2987, 3023, 2987],
     [3019, 2989, 2989, 1, 2987, 3023, 3033, 2987],
     [3022, 3019, 2989, 2989, 1, 2987, 3023, 2987],
     [3019, 2989, 2989, 2989, 1, 2987, 3018, 2987],
     [3017, 2989, 2989, 1, 2987, 3018, 2987, 3014],
     [2989, 2989, 1, 2987, 3018, 3034, 2987, 3017],
     [3014, 2989, 2989, 1, 2987, 3018, 2987, 3014],
     [2989, 2989, 2989, 1, 2987, 2988, 2987, 3035],
     [2989, 2989, 1, 2987, 2988, 2987, 3036, 2989],
     [2989, 1, 2987, 2988, 3037, 2987, 3035, 3036],
     [2989, 2989, 1, 2987, 2988, 2987, 3036, 2989],
     [2989, 2989, 1, 3039, 3038, 3038, 3038, 1],
     [3041, 3040, 3040, 3040, 1, 3041, 3042, 3042],
     [3042, 1, 3041, 3043, 3043, 3043, 1, 3041],
     [1, 3045, 3044, 3044, 3044, 1, 3047, 3046],
     [3046, 3046, 1, 3047, 3048, 3048, 3048, 1],
     [3047, 3049, 3049, 3049, 1, 3047, 1, 3051],
     [3050, 3050, 3050, 1, 3053, 3052, 3052, 3052],
     [1, 3053, 3054, 3054, 3054, 1, 3053, 3055],
     [3055, 3055, 1, 3053, 1, 3057, 3056, 3056],
     [3056, 1, 3059, 3058, 3058, 3058, 1, 3059],
     [3060, 3060, 3060, 1, 3059, 3061, 3061, 3061],
     [1, 3059, 1, 3063, 3062, 3062, 3062, 1],
     [3065, 3064, 3064, 3064, 1, 3065, 3066, 3066],
     [3066, 1, 3065, 3067, 3067, 3067, 1, 3065],
     [1, 3069, 3068, 3068, 3068, 1, 3071, 3070],
     [3070, 3070, 1, 3071, 3072, 3072, 3072, 1],
     [3071, 3073, 3073, 3073, 1, 3071, 1, 3074],
     [3075, 3076, 3078, 3077, 3079, 3079, 1, 3080],
     [3082, 3081, 3081, 3081, 1, 3083, 3084, 3085]]"

definition smp_indicies_18 :: "int list list" where
  "smp_indicies_18 =
    [[3086, 1, 3087, 1, 3088, 3089, 3090, 3091],
     [1, 3092, 1, 3093, 3094, 3095, 3096, 1],
     [3097, 1, 3098, 3099, 3098, 3100, 3101, 1],
     [3097, 3096, 1, 3097, 3093, 1, 3102, 3097],
     [3096, 3093, 1, 3097, 3093, 1, 3092, 3091],
     [1, 3092, 3088, 1, 3092, 3103, 3091, 3088],
     [1, 3092, 3088, 1, 3087, 3086, 1, 3087],
     [3083, 1, 3087, 3104, 3086, 3083, 1, 3087],
     [3083, 1, 3082, 3105, 3105, 3105, 1, 3082],
     [3106, 3106, 3106, 1, 3082, 1, 3093, 3107],
     [3107, 3107, 1, 3097, 3108, 3108, 3108, 1],
     [3097, 3109, 3109, 3109, 1, 3097, 3093, 3093],
     [3093, 1, 3080, 3082, 3110, 3081, 3081, 1],
     [3080, 3082, 3111, 3105, 3105, 1, 3080, 3082],
     [3106, 3106, 3106, 1, 3080, 3112, 3082, 3110],
     [3113, 3081, 3081, 1, 3080, 3082, 3111, 3105],
     [3105, 3105, 1, 3080, 3082, 3105, 3105, 3105],
     [1, 3080, 3082, 3113, 3081, 3081, 1, 3097],
     [3107, 3107, 3107, 1, 3082, 3081, 3081, 3081],
     [1, 3114, 3115, 3116, 3097, 3117, 3118, 3118],
     [1, 3080, 3120, 3097, 3119, 3119, 3119, 1],
     [3120, 3097, 3121, 3121, 3121, 1, 3120, 3097],
     [3122, 3122, 3122, 1, 3120, 3097, 1, 3107],
     [3107, 3107, 1, 3080, 3120, 3097, 3123, 3119],
     [3119, 1, 3080, 3120, 3097, 3124, 3121, 3121],
     [1, 3080, 3120, 3097, 3122, 3122, 3122, 1],
     [3080, 3125, 3120, 3097, 3123, 3126, 3119, 3119],
     [1, 3080, 3120, 3097, 3124, 3121, 3121, 3121],
     [1, 3080, 3120, 3097, 3121, 3121, 3121, 1],
     [3080, 3120, 3097, 3126, 3119, 3119, 1, 3120],
     [3097, 3119, 3119, 3119, 1, 3127, 3128, 3129],
     [3097, 3130, 3131, 3131, 1, 3080, 3133, 3097],
     [3132, 3132, 3132, 1, 3133, 3097, 3134, 3134],
     [3134, 1, 3133, 3097, 3135, 3135, 3135, 1],
     [3133, 3097, 1, 3114, 3115, 3116, 3117, 3118],
     [3118, 1, 3080, 3133, 3097, 3136, 3132, 3132],
     [1, 3080, 3133, 3097, 3137, 3134, 3134, 1],
     [3080, 3133, 3097, 3135, 3135, 3135, 1, 3080],
     [3138, 3133, 3097, 3136, 3139, 3132, 3132, 1],
     [3080, 3133, 3097, 3137, 3134, 3134, 3134, 1],
     [3080, 3133, 3097, 3134, 3134, 3134, 1, 3080],
     [3133, 3097, 3139, 3132, 3132, 1, 3133, 3097],
     [3132, 3132, 3132, 1, 3140, 3141, 3142, 3097],
     [3143, 3144, 3144, 1, 3080, 3146, 3097, 3145],
     [3145, 3145, 1, 3146, 3097, 3147, 3147, 3147],
     [1, 3146, 3097, 3148, 3148, 3148, 1, 3146],
     [3097, 1, 3127, 3128, 3129, 3130, 3131, 3131],
     [1, 3080, 3146, 3097, 3149, 3145, 3145, 1],
     [3080, 3146, 3097, 3150, 3147, 3147, 1, 3080],
     [3146, 3097, 3148, 3148, 3148, 1, 3080, 3151],
     [3146, 3097, 3149, 3152, 3145, 3145, 1, 3080],
     [3146, 3097, 3150, 3147, 3147, 3147, 1, 3080],
     [3146, 3097, 3147, 3147, 3147, 1, 3080, 3146],
     [3097, 3152, 3145, 3145, 1, 3146, 3097, 3145],
     [3145, 3145, 1, 3153, 3154, 3155, 3097, 3156],
     [3157, 3157, 1, 3080, 3159, 3097, 3158, 3158],
     [3158, 1, 3159, 3097, 3160, 3160, 3160, 1],
     [3159, 3097, 3161, 3161, 3161, 1, 3159, 3097],
     [1, 3140, 3141, 3142, 3143, 3144, 3144, 1],
     [3080, 3159, 3097, 3162, 3158, 3158, 1, 3080],
     [3159, 3097, 3163, 3160, 3160, 1, 3080, 3159],
     [3097, 3161, 3161, 3161, 1, 3080, 3164, 3159],
     [3097, 3162, 3165, 3158, 3158, 1, 3080, 3159],
     [3097, 3163, 3160, 3160, 3160, 1, 3080, 3159],
     [3097, 3160, 3160, 3160, 1, 3080, 3159, 3097],
     [3165, 3158, 3158, 1, 3159, 3097, 3158, 3158],
     [3158, 1, 3166, 3167, 3168, 3097, 3169, 3170],
     [3170, 1, 3080, 3172, 3097, 3171, 3171, 3171],
     [1, 3172, 3097, 3173, 3173, 3173, 1, 3172],
     [3097, 3174, 3174, 3174, 1, 3172, 3097, 1],
     [3153, 3154, 3155, 3156, 3157, 3157, 1, 3080],
     [3172, 3097, 3175, 3171, 3171, 1, 3080, 3172],
     [3097, 3176, 3173, 3173, 1, 3080, 3172, 3097],
     [3174, 3174, 3174, 1, 3080, 3177, 3172, 3097],
     [3175, 3178, 3171, 3171, 1, 3080, 3172, 3097],
     [3176, 3173, 3173, 3173, 1, 3080, 3172, 3097],
     [3173, 3173, 3173, 1, 3080, 3172, 3097, 3178],
     [3171, 3171, 1, 3172, 3097, 3171, 3171, 3171],
     [1, 3179, 1, 3180, 3181, 3182, 3097, 3183],
     [3184, 3184, 1, 3080, 3186, 3097, 3185, 3185],
     [3185, 1, 3186, 3097, 3187, 3187, 3187, 1],
     [3186, 3097, 3188, 3188, 3188, 1, 3186, 3097],
     [1, 3166, 3167, 3168, 3169, 3170, 3170, 1],
     [3080, 3186, 3097, 3189, 3185, 3185, 1, 3080],
     [3186, 3097, 3190, 3187, 3187, 1, 3080, 3186],
     [3097, 3188, 3188, 3188, 1, 3080, 3191, 3186],
     [3097, 3189, 3192, 3185, 3185, 1, 3080, 3186],
     [3097, 3190, 3187, 3187, 3187, 1, 3080, 3186],
     [3097, 3187, 3187, 3187, 1, 3080, 3186, 3097],
     [3192, 3185, 3185, 1, 3186, 3097, 3185, 3185],
     [3185, 1, 2975, 2976, 3193, 3194, 2975, 2977],
     [2975, 2978, 3193, 2975, 2975, 3195, 3195, 3195],
     [1, 2975, 2976, 3193, 2977, 2975, 2978, 3193],
     [2975, 2975, 2975, 3195, 3195, 3195, 1, 2975],
     [2976, 3193, 3196, 2975, 2977, 2975, 2978, 3193],
     [2975, 2975, 3195, 3195, 3195, 1, 2975, 2976],
     [2977, 2975, 2978, 2975, 2975, 2975, 2975, 3195],
     [3197, 3197, 1, 2992, 2993, 2992, 2975, 2976],
     [3198, 3199, 2975, 3200, 2997, 2975, 2978, 3198],
     [2975, 2975, 3197, 3197, 3197, 1, 2975, 2976],
     [3198, 2977, 2975, 2978, 3198, 2975, 2975, 2975],
     [3197, 3197, 3197, 1, 2992, 2993, 2992, 2975],
     [2976, 3200, 2997, 2975, 2978, 2975, 2975, 2975],
     [2975, 3195, 3197, 3197, 1, 2977, 2980, 3201],
     [3203, 2977, 2978, 2977, 2977, 2977, 2977, 3202],
     [3204, 2977, 2977, 1, 2977, 2980, 3205, 2977],
     [2978, 2977, 2977, 2977, 2977, 3206, 2977, 2977],
     [1, 2977, 2980, 3207, 2977, 2978, 2977, 2977],
     [2977, 2977, 3208, 2977, 2977, 1, 2977, 2980],
     [2977, 2977, 2978, 2977, 2977, 2977, 2977, 3209],
     [2977, 2977, 1, 3007, 3008, 3007, 2977, 2980],
     [3009, 2977, 2978, 2977, 2977, 2977, 2977, 2977],
     [2977, 2977, 1, 3007, 3008, 3007, 2977, 2980],
     [3009, 2977, 2978, 2977, 2977, 2977, 2977, 3209],
     [2977, 2977, 1, 3007, 3008, 3007, 2977, 2980],
     [3009, 2977, 2978, 2977, 2977, 2977, 2977, 3208],
     [2977, 2977, 1, 3007, 3008, 3007, 2977, 2980],
     [3009, 2977, 2978, 2977, 2977, 2977, 2977, 3210],
     [2977, 2977, 1, 3007, 3008, 3007, 2977, 2980],
     [3009, 2977, 2978, 2977, 2977, 2977, 2977, 3206],
     [2977, 2977, 1, 3007, 3008, 3007, 2977, 2980],
     [3211, 3009, 2977, 2978, 2977, 2977, 2977, 2977],
     [3210, 3206, 2977, 2977, 1, 3007, 3008, 3007],
     [2977, 2980, 3212, 3009, 2977, 2978, 2977, 2977],
     [2977, 2977, 3206, 3208, 2977, 2977, 1, 3007],
     [3008, 3007, 2977, 2980, 3213, 3009, 2977, 2978],
     [2977, 2977, 2977, 2977, 3208, 3209, 2977, 2977],
     [1, 3007, 3008, 3007, 2977, 2980, 3009, 2977],
     [2978, 2977, 2977, 2977, 2977, 3209, 2977, 2977],
     [2977, 1, 2975, 2976, 3214, 3215, 3216, 2977],
     [2975, 2978, 2975, 2975, 2975, 2975, 3217, 3197],
     [3197, 1, 2975, 2976, 3193, 3218, 2975, 2977],
     [2975, 2978, 3193, 2975, 2975, 3195, 3195, 3195],
     [1, 2975, 2976, 3219, 3220, 3221, 2977, 2975],
     [2978, 2975, 2975, 2975, 2975, 3222, 3197, 3197],
     [1, 2975, 2976, 3193, 3223, 2975, 2977, 2975],
     [2978, 3193, 2975, 2975, 3195, 3195, 3195, 1],
     [2975, 2976, 3224, 3225, 3226, 2977, 2975, 2978],
     [2975, 2975, 2975, 2975, 3227, 3197, 3197, 1],
     [3028, 3029, 3028, 2975, 2976, 3193, 3196, 2975],
     [3228, 3031, 2975, 2978, 3193, 2975, 2975, 3195],
     [3195, 3195, 1, 3028, 3029, 3028, 2975, 2976],
     [3193, 3196, 2975, 3228, 3031, 2975, 2978, 3193],
     [2975, 2975, 3227, 3195, 3195, 1, 3028, 3029],
     [3028, 2975, 2976, 3193, 3196, 2975, 3228, 3031],
     [2975, 2978, 3193, 2975, 2975, 3224, 3195, 3195],
     [1, 3028, 3029, 3028, 2975, 2976, 3193, 3196],
     [2975, 3229, 3228, 3031, 2975, 2978, 3193, 2975],
     [2975, 3227, 3224, 3195, 3195, 1, 3028, 3029],
     [3028, 2975, 2976, 3193, 3196, 2975, 3228, 3031]]"

definition smp_indicies_19 :: "int list list" where
  "smp_indicies_19 =
    [[2975, 2978, 3193, 2975, 2975, 3224, 3195, 3195],
     [3195, 1, 2975, 2976, 3193, 3223, 2975, 2977],
     [2975, 2978, 3193, 2975, 2975, 3222, 3195, 3195],
     [1, 2975, 2976, 3193, 3223, 2975, 2977, 2975],
     [2978, 3193, 2975, 2975, 3219, 3195, 3195, 1],
     [2975, 2976, 3193, 3223, 2975, 3230, 2977, 2975],
     [2978, 3193, 2975, 2975, 3222, 3219, 3195, 3195],
     [1, 2975, 2976, 3193, 3223, 2975, 2977, 2975],
     [2978, 3193, 2975, 2975, 3219, 3195, 3195, 3195],
     [1, 2975, 2976, 3193, 3218, 2975, 2977, 2975],
     [2978, 3193, 2975, 2975, 3217, 3195, 3195, 1],
     [2975, 2976, 3193, 3218, 2975, 2977, 2975, 2978],
     [3193, 2975, 2975, 3214, 3195, 3195, 1, 2975],
     [2976, 3193, 3218, 2975, 3231, 2977, 2975, 2978],
     [3193, 2975, 2975, 3217, 3214, 3195, 3195, 1],
     [2975, 2976, 3193, 3218, 2975, 2977, 2975, 2978],
     [3193, 2975, 2975, 3214, 3195, 3195, 3195, 1],
     [2975, 2976, 3193, 3194, 2975, 2977, 2975, 2978],
     [3193, 2975, 2975, 3232, 3195, 3195, 1, 2975],
     [2976, 3193, 3194, 2975, 2977, 2975, 2978, 3193],
     [2975, 2975, 3233, 3195, 3195, 1, 2975, 2976],
     [3193, 3194, 2975, 3234, 2977, 2975, 2978, 3193],
     [2975, 2975, 3232, 3233, 3195, 3195, 1, 2975],
     [2976, 3193, 3194, 2975, 2977, 2975, 2978, 3193],
     [2975, 2975, 3233, 3195, 3195, 3195, 1, 2515],
     [2516, 2515, 2517, 2517, 2517, 2517, 2537, 3235],
     [2518, 2517, 2537, 2537, 2537, 2517, 2537, 1],
     [2515, 2516, 2515, 2517, 2517, 2517, 2517, 2537],
     [2538, 2518, 3236, 3236, 2517, 2537, 2537, 2537],
     [2517, 2537, 1, 2515, 2516, 2515, 2517, 2517],
     [2517, 2517, 2537, 2538, 2518, 3237, 3237, 2517],
     [2537, 2537, 2537, 2517, 2537, 1, 2515, 2516],
     [2515, 2517, 2517, 2517, 2517, 2537, 3238, 2518],
     [2517, 2537, 2537, 2537, 2517, 2537, 1, 3239],
     [3239, 3241, 3240, 3240, 3239, 3239, 3239, 1],
     [3242, 3243, 3242, 3244, 3245, 3244, 3244, 3244],
     [3244, 3244, 1, 3244, 3244, 3246, 3246, 3244],
     [3244, 3244, 1, 3247, 3247, 3248, 1, 3242],
     [3243, 3242, 3245, 3248, 3248, 3248, 1, 602],
     [602, 61, 61, 61, 603, 61, 61, 61],
     [61, 61, 61, 1, 60, 60, 61, 61],
     [61, 62, 3249, 3249, 61, 61, 61, 61],
     [61, 61, 1, 60, 60, 61, 61, 61],
     [62, 3250, 3250, 61, 61, 61, 61, 61],
     [61, 1, 60, 60, 61, 61, 61, 62],
     [3251, 3251, 61, 61, 61, 61, 61, 61],
     [1, 3252, 3252, 61, 61, 61, 3253, 61],
     [61, 61, 61, 61, 61, 1, 3254, 3254],
     [3255, 1, 3256, 3257, 3256, 3258, 3259, 3258],
     [3258, 3260, 3258, 3258, 3258, 3258, 3258, 3258],
     [1, 3261, 1, 3262, 3262, 1, 3263, 3264],
     [3263, 3258, 3259, 3258, 3258, 3260, 3258, 3258],
     [3258, 3258, 3258, 3258, 1, 3265, 1, 3266],
     [3266, 1, 3266, 3266, 3267, 1, 3268, 3268],
     [1, 3269, 3269, 1, 3270, 3270, 1, 3271],
     [3272, 3272, 1, 3273, 3274, 3275, 3276, 3277],
     [3273, 3273, 3273, 3280, 3273, 3273, 3273, 3278],
     [3279, 3279, 1, 3281, 3282, 3283, 3281, 3284],
     [3281, 3281, 3281, 3281, 3281, 1, 3285, 3285],
     [3285, 1, 3281, 3281, 3281, 1, 3283, 3286],
     [3283, 3284, 3283, 3283, 3283, 3283, 3283, 3283],
     [1, 3287, 3287, 3287, 1, 3283, 3283, 3283],
     [1, 3288, 3289, 3290, 3280, 3291, 3292, 3292],
     [1, 3293, 3294, 3293, 3295, 3295, 3295, 1],
     [3293, 3293, 3295, 3295, 3295, 1, 3293, 3296],
     [3293, 3295, 3295, 3295, 1, 3295, 3297, 3297],
     [1, 3298, 3299, 3300, 3301, 3302, 3303, 3298],
     [3297, 3297, 3297, 1, 3298, 3298, 3297, 3297],
     [3297, 1, 3300, 3301, 3302, 3303, 3295, 3297],
     [3297, 1, 3304, 3306, 3305, 3307, 1, 3308],
     [3309, 1, 3310, 3311, 1, 3312, 1, 3313],
     [3314, 3315, 1, 3316, 3317, 3318, 3319, 3320],
     [3316, 3316, 3318, 3319, 3320, 3316, 3316, 3316],
     [3316, 3316, 1, 3321, 3322, 3323, 3324, 3325],
     [3326, 3321, 3321, 3321, 3321, 3321, 3321, 3321],
     [1, 3327, 3327, 3327, 1, 3321, 3321, 3321],
     [1, 3328, 3329, 3323, 3330, 3325, 3326, 3328],
     [3328, 3328, 3328, 3328, 3328, 3328, 1, 3331],
     [3332, 3333, 3334, 3335, 3331, 3331, 3331, 3331],
     [3331, 3331, 3331, 1, 3336, 3336, 3336, 1],
     [3331, 3331, 3331, 1, 3337, 3338, 3337, 3339],
     [3340, 1, 3341, 3342, 3341, 3343, 3340, 1],
     [3344, 1, 3345, 3345, 1, 3345, 3345, 3343],
     [3340, 1, 3343, 3346, 3343, 3347, 3348, 3347],
     [3347, 3349, 3347, 3347, 3347, 3347, 3347, 3347],
     [1, 3350, 1, 3351, 3351, 1, 3351, 3352],
     [3351, 3347, 3348, 3347, 3347, 3349, 3347, 3347],
     [3347, 3347, 3347, 3347, 1, 3353, 3354, 3353],
     [3355, 3355, 3355, 3356, 3355, 3355, 3355, 3355],
     [3355, 3355, 1, 3357, 3358, 3357, 3355, 3355],
     [3355, 3267, 3355, 3355, 3355, 3355, 3355, 3355],
     [1, 3359, 1, 3360, 3360, 1, 3360, 3360],
     [3355, 3355, 3355, 3267, 3355, 3355, 3355, 3355],
     [3355, 3355, 1, 3366, 3367, 3368, 3369, 3361],
     [3362, 3363, 3364, 3365, 3366, 1, 3366, 1],
     [3361, 1, 3362, 1, 3363, 1, 3364, 1],
     [3370, 1, 3366, 3366, 1, 3371, 3372, 3371],
     [3356, 1, 3373, 3374, 3373, 3267, 1, 3366],
     [3366, 3366, 1, 3340, 3375, 3340, 3376, 3376],
     [3376, 3376, 3376, 3376, 3376, 3376, 3376, 1],
     [3377, 1, 3378, 3378, 1, 3378, 3378, 3376],
     [3376, 3376, 3376, 3376, 3376, 3376, 3376, 3376],
     [1, 3379, 3380, 3379, 3376, 3376, 3376, 3339],
     [3340, 3381, 3376, 3376, 3376, 3376, 3376, 1],
     [3382, 3383, 3382, 3343, 3340, 3381, 1, 3384],
     [1, 3385, 3385, 1, 3385, 3385, 3343, 3340],
     [3381, 1, 3381, 3386, 3381, 3387, 3388, 3387],
     [3387, 3389, 3387, 3387, 3387, 3387, 3387, 3387],
     [1, 3390, 1, 3391, 3391, 1, 3391, 3391],
     [3387, 3388, 3387, 3387, 3389, 3387, 3387, 3387],
     [3387, 3387, 3387, 1, 3337, 3338, 3337, 3387],
     [3387, 3387, 3339, 3340, 3387, 3387, 3387, 3387],
     [3387, 1, 3392, 1, 3345, 46, 3345, 47],
     [47, 47, 48, 49, 50, 51, 52, 53],
     [54, 55, 56, 57, 58, 48, 49, 50],
     [51, 52, 53, 54, 55, 56, 57, 58],
     [47, 47, 47, 47, 47, 47, 1, 3388],
     [3398, 3399, 3400, 3393, 3394, 3395, 3396, 3397],
     [3388, 1, 3388, 1, 3393, 1, 3394, 1],
     [3395, 1, 3396, 1, 3401, 1, 3388, 3388],
     [1, 3388, 3388, 3388, 1, 3403, 3402, 3402],
     [3402, 1, 3405, 3404, 3404, 3404, 1, 3405],
     [3406, 3406, 3406, 1, 3405, 3407, 3407, 3407],
     [1, 3405, 1, 3409, 3408, 3408, 3408, 1],
     [3411, 3410, 3410, 3410, 1, 3411, 3412, 3412],
     [3412, 1, 3411, 3413, 3413, 3413, 1, 3411],
     [1, 3415, 3414, 3414, 3414, 1, 3417, 3416],
     [3416, 3416, 1, 3417, 3418, 3418, 3418, 1],
     [3417, 3419, 3419, 3419, 1, 3417, 1, 3421],
     [3420, 3420, 3420, 1, 3423, 3422, 3422, 3422],
     [1, 3423, 3424, 3424, 3424, 1, 3423, 3425],
     [3425, 3425, 1, 3423, 1, 3427, 3426, 3426],
     [3426, 1, 3429, 3428, 3428, 3428, 1, 3429],
     [3430, 3430, 3430, 1, 3429, 3431, 3431, 3431],
     [1, 3429, 1, 3433, 3432, 3432, 3432, 1],
     [3435, 3434, 3434, 3434, 1, 3435, 3436, 3436],
     [3436, 1, 3435, 3437, 3437, 3437, 1, 3435],
     [1, 3438, 3439, 3440, 3442, 3441, 3443, 3443],
     [1, 3444, 3446, 3445, 3445, 3445, 1, 3447],
     [3448, 3449, 3450, 1, 3451, 1, 3452, 3453],
     [3454, 3455, 1, 3456, 1, 3457, 3458, 3459],
     [3460, 1, 3399, 1, 3399, 3460, 1, 3399],
     [3457, 1, 3461, 3399, 3460, 3457, 1, 3399],
     [3457, 1, 3456, 3455, 1, 3456, 3452, 1],
     [3456, 3462, 3455, 3452, 1, 3456, 3452, 1],
     [3451, 3450, 1, 3451, 3447, 1, 3451, 3463],
     [3450, 3447, 1, 3451, 3447, 1, 3446, 3464],
     [3464, 3464, 1, 3446, 3465, 3465, 3465, 1],
     [3446, 1, 3457, 3466, 3466, 3466, 1, 3399],
     [3467, 3467, 3467, 1, 3399, 3468, 3468, 3468]]"

definition smp_indicies_20 :: "int list list" where
  "smp_indicies_20 =
    [[1, 3399, 3457, 3457, 3457, 1, 3444, 3446],
     [3469, 3445, 3445, 1, 3444, 3446, 3470, 3464],
     [3464, 1, 3444, 3446, 3465, 3465, 3465, 1],
     [3444, 3471, 3446, 3469, 3472, 3445, 3445, 1],
     [3444, 3446, 3470, 3464, 3464, 3464, 1, 3444],
     [3446, 3464, 3464, 3464, 1, 3444, 3446, 3472],
     [3445, 3445, 1, 3399, 3466, 3466, 3466, 1],
     [3446, 3445, 3445, 3445, 1, 3473, 3474, 3475],
     [3399, 3476, 3477, 3477, 1, 3444, 3479, 3399],
     [3478, 3478, 3478, 1, 3479, 3399, 3480, 3480],
     [3480, 1, 3479, 3399, 3481, 3481, 3481, 1],
     [3479, 3399, 1, 3466, 3466, 3466, 1, 3444],
     [3479, 3399, 3482, 3478, 3478, 1, 3444, 3479],
     [3399, 3483, 3480, 3480, 1, 3444, 3479, 3399],
     [3481, 3481, 3481, 1, 3444, 3484, 3479, 3399],
     [3482, 3485, 3478, 3478, 1, 3444, 3479, 3399],
     [3483, 3480, 3480, 3480, 1, 3444, 3479, 3399],
     [3480, 3480, 3480, 1, 3444, 3479, 3399, 3485],
     [3478, 3478, 1, 3479, 3399, 3478, 3478, 3478],
     [1, 3486, 3487, 3488, 3399, 3489, 3490, 3490],
     [1, 3444, 3492, 3399, 3491, 3491, 3491, 1],
     [3492, 3399, 3493, 3493, 3493, 1, 3492, 3399],
     [3494, 3494, 3494, 1, 3492, 3399, 1, 3473],
     [3474, 3475, 3476, 3477, 3477, 1, 3444, 3492],
     [3399, 3495, 3491, 3491, 1, 3444, 3492, 3399],
     [3496, 3493, 3493, 1, 3444, 3492, 3399, 3494],
     [3494, 3494, 1, 3444, 3497, 3492, 3399, 3495],
     [3498, 3491, 3491, 1, 3444, 3492, 3399, 3496],
     [3493, 3493, 3493, 1, 3444, 3492, 3399, 3493],
     [3493, 3493, 1, 3444, 3492, 3399, 3498, 3491],
     [3491, 1, 3492, 3399, 3491, 3491, 3491, 1],
     [3499, 3500, 3501, 3399, 3502, 3503, 3503, 1],
     [3444, 3505, 3399, 3504, 3504, 3504, 1, 3505],
     [3399, 3506, 3506, 3506, 1, 3505, 3399, 3507],
     [3507, 3507, 1, 3505, 3399, 1, 3486, 3487],
     [3488, 3489, 3490, 3490, 1, 3444, 3505, 3399],
     [3508, 3504, 3504, 1, 3444, 3505, 3399, 3509],
     [3506, 3506, 1, 3444, 3505, 3399, 3507, 3507],
     [3507, 1, 3444, 3510, 3505, 3399, 3508, 3511],
     [3504, 3504, 1, 3444, 3505, 3399, 3509, 3506],
     [3506, 3506, 1, 3444, 3505, 3399, 3506, 3506],
     [3506, 1, 3444, 3505, 3399, 3511, 3504, 3504],
     [1, 3505, 3399, 3504, 3504, 3504, 1, 3512],
     [3513, 3514, 3399, 3515, 3516, 3516, 1, 3444],
     [3518, 3399, 3517, 3517, 3517, 1, 3518, 3399],
     [3519, 3519, 3519, 1, 3518, 3399, 3520, 3520],
     [3520, 1, 3518, 3399, 1, 3499, 3500, 3501],
     [3502, 3503, 3503, 1, 3444, 3518, 3399, 3521],
     [3517, 3517, 1, 3444, 3518, 3399, 3522, 3519],
     [3519, 1, 3444, 3518, 3399, 3520, 3520, 3520],
     [1, 3444, 3523, 3518, 3399, 3521, 3524, 3517],
     [3517, 1, 3444, 3518, 3399, 3522, 3519, 3519],
     [3519, 1, 3444, 3518, 3399, 3519, 3519, 3519],
     [1, 3444, 3518, 3399, 3524, 3517, 3517, 1],
     [3518, 3399, 3517, 3517, 3517, 1, 3525, 3526],
     [3527, 3399, 3528, 3529, 3529, 1, 3444, 3531],
     [3399, 3530, 3530, 3530, 1, 3531, 3399, 3532],
     [3532, 3532, 1, 3531, 3399, 3533, 3533, 3533],
     [1, 3531, 3399, 1, 3512, 3513, 3514, 3515],
     [3516, 3516, 1, 3444, 3531, 3399, 3534, 3530],
     [3530, 1, 3444, 3531, 3399, 3535, 3532, 3532],
     [1, 3444, 3531, 3399, 3533, 3533, 3533, 1],
     [3444, 3536, 3531, 3399, 3534, 3537, 3530, 3530],
     [1, 3444, 3531, 3399, 3535, 3532, 3532, 3532],
     [1, 3444, 3531, 3399, 3532, 3532, 3532, 1],
     [3444, 3531, 3399, 3537, 3530, 3530, 1, 3531],
     [3399, 3530, 3530, 3530, 1, 3538, 1, 3539],
     [3540, 3541, 3399, 3542, 3543, 3543, 1, 3444],
     [3545, 3399, 3544, 3544, 3544, 1, 3545, 3399],
     [3546, 3546, 3546, 1, 3545, 3399, 3547, 3547],
     [3547, 1, 3545, 3399, 1, 3525, 3526, 3527],
     [3528, 3529, 3529, 1, 3444, 3545, 3399, 3548],
     [3544, 3544, 1, 3444, 3545, 3399, 3549, 3546],
     [3546, 1, 3444, 3545, 3399, 3547, 3547, 3547],
     [1, 3444, 3550, 3545, 3399, 3548, 3551, 3544],
     [3544, 1, 3444, 3545, 3399, 3549, 3546, 3546],
     [3546, 1, 3444, 3545, 3399, 3546, 3546, 3546],
     [1, 3444, 3545, 3399, 3551, 3544, 3544, 1],
     [3545, 3399, 3544, 3544, 3544, 1, 3552, 1],
     [3385, 46, 3385, 47, 47, 47, 48, 49],
     [50, 51, 52, 53, 54, 55, 56, 57],
     [58, 48, 49, 50, 51, 52, 53, 54],
     [55, 56, 57, 58, 47, 47, 47, 47],
     [47, 47, 1, 3553, 3553, 3554, 3553, 3553],
     [3553, 3553, 3553, 3553, 3553, 3553, 1, 3553],
     [3553, 3554, 3555, 3553, 3553, 3553, 3553, 3553],
     [3553, 3553, 3553, 1, 3556, 3556, 3556, 1],
     [3553, 3553, 3553, 1, 3555, 3557, 3558, 3559],
     [3555, 3555, 3555, 3555, 3555, 3555, 3555, 3555],
     [1, 3560, 3560, 3560, 1, 3555, 3555, 3555],
     [1, 3328, 3329, 3328, 3328, 3328, 3328, 3328],
     [3328, 3328, 1, 3321, 3322, 3323, 3324, 3325],
     [3326, 3561, 3321, 3321, 3561, 3321, 3321, 3321],
     [3321, 3321, 1, 3321, 3322, 3562, 3563, 3564],
     [3565, 3321, 3321, 3321, 3321, 3321, 3321, 3321],
     [1, 3566, 3567, 3566, 3328, 3328, 3323, 3330],
     [3325, 3326, 3328, 3328, 3568, 3566, 3328, 3566],
     [3566, 3566, 3566, 1, 3569, 3570, 3569, 3331],
     [3331, 3333, 3334, 3335, 3331, 3331, 3568, 3569],
     [3331, 3569, 3569, 3569, 3569, 1, 3568, 3568],
     [3568, 3572, 3573, 3574, 3568, 3568, 3568, 3571],
     [3571, 3568, 3568, 3571, 3568, 1, 3568, 3568],
     [3568, 3572, 3573, 3574, 3568, 3568, 3568, 3568],
     [3568, 3568, 1, 3568, 3568, 3568, 3572, 3573],
     [3574, 3568, 3568, 3568, 3569, 3569, 3568, 3568],
     [3569, 3568, 1, 3321, 3322, 3323, 3324, 3325],
     [3326, 3575, 3576, 3321, 3321, 3575, 3576, 3321],
     [3321, 3321, 3321, 3321, 1, 3321, 3322, 3577],
     [3578, 3579, 3580, 3321, 3321, 3321, 3321, 3321],
     [3321, 3321, 1, 3321, 3322, 3323, 3324, 3325],
     [3326, 3581, 3321, 3321, 3581, 3321, 3321, 3321],
     [3321, 3321, 1, 3321, 3322, 3323, 3324, 3325],
     [3326, 3582, 3321, 3321, 3582, 3321, 3321, 3321],
     [3321, 3321, 1, 3321, 3322, 3323, 3583, 3325],
     [3326, 3321, 3321, 3321, 3321, 3321, 3321, 3321],
     [1, 3584, 3585, 3584, 3328, 3328, 3323, 3330],
     [3325, 3326, 3328, 3328, 3586, 3584, 3328, 3584],
     [3584, 3584, 3584, 1, 3587, 3588, 3587, 3331],
     [3331, 3589, 3590, 3591, 3331, 3331, 3592, 3587],
     [3331, 3587, 3587, 3587, 3587, 1, 3592, 3592],
     [3592, 3594, 3595, 3596, 3592, 3592, 3592, 3593],
     [3593, 3592, 3592, 3593, 3592, 1, 3592, 3592],
     [3592, 3594, 3595, 3596, 3592, 3592, 3592, 3592],
     [3592, 3592, 1, 3592, 3592, 3592, 3594, 3595],
     [3596, 3592, 3592, 3592, 3587, 3587, 3592, 3592],
     [3587, 3592, 1, 3321, 3322, 3323, 3324, 3325],
     [3326, 3597, 3321, 3321, 3597, 3321, 3321, 3321],
     [3321, 3321, 1, 3321, 3322, 3323, 3324, 3325],
     [3326, 3598, 3321, 3321, 3598, 3321, 3321, 3321],
     [3321, 3321, 1, 3321, 3322, 3323, 3324, 3325],
     [3326, 3599, 3321, 3321, 3599, 3321, 3321, 3321],
     [3321, 3321, 1, 3321, 3322, 3323, 3324, 3325],
     [3326, 3600, 3321, 3321, 3600, 3321, 3321, 3321],
     [3321, 3321, 1, 3321, 3322, 3323, 3324, 3325],
     [3326, 3601, 3321, 3321, 3601, 3321, 3321, 3321],
     [3321, 3321, 1, 3321, 3322, 3323, 3324, 3325],
     [3326, 3602, 3321, 3321, 3602, 3321, 3321, 3321],
     [3321, 3321, 1, 3321, 3322, 3323, 3324, 3325],
     [3326, 3603, 3321, 3321, 3603, 3321, 3321, 3321],
     [3321, 3321, 1, 3321, 3322, 3323, 3324, 3325],
     [3326, 3604, 3321, 3321, 3604, 3321, 3321, 3321],
     [3321, 3321, 1, 3321, 3322, 3323, 3605, 3325],
     [3326, 3321, 3321, 3321, 3321, 3321, 3321, 3321],
     [1, 3606, 3607, 3606, 3328, 3328, 3323, 3330],
     [3325, 3326, 3608, 3609, 3610, 3611, 3328, 3328],
     [3612, 3608, 3609, 3610, 3611, 3606, 3328, 3606],
     [3606, 3606, 3606, 1, 3613, 3614, 3613, 3331],
     [3331, 3615, 3616, 3617, 3331, 3331, 3618, 3613],
     [3331, 3613, 3613, 3613, 3613, 1, 3618, 3618],
     [3618, 3620, 3621, 3622, 3618, 3618, 3618, 3619]]"

definition smp_indicies_21 :: "int list list" where
  "smp_indicies_21 =
    [[3619, 3618, 3618, 3619, 3618, 1, 3618, 3618],
     [3618, 3620, 3621, 3622, 3618, 3618, 3618, 3618],
     [3618, 3618, 1, 3618, 3618, 3618, 3620, 3621],
     [3622, 3618, 3618, 3618, 3613, 3613, 3618, 3618],
     [3613, 3618, 1, 3613, 3614, 3613, 3331, 3331],
     [3615, 3616, 3617, 3623, 3331, 3331, 3618, 3623],
     [3613, 3331, 3613, 3613, 3613, 3613, 1, 3613],
     [3614, 3613, 3331, 3331, 3615, 3616, 3617, 3624],
     [3331, 3331, 3618, 3624, 3613, 3331, 3613, 3613],
     [3613, 3613, 1, 3613, 3614, 3613, 3331, 3331],
     [3615, 3616, 3617, 3625, 3331, 3331, 3618, 3625],
     [3613, 3331, 3613, 3613, 3613, 3613, 1, 3613],
     [3614, 3613, 3331, 3331, 3626, 3627, 3628, 3331],
     [3331, 3618, 3613, 3331, 3613, 3613, 3613, 3613],
     [1, 3613, 3614, 3613, 3331, 3331, 3615, 3616],
     [3617, 3629, 3630, 3331, 3331, 3618, 3629, 3630],
     [3613, 3331, 3613, 3613, 3613, 3613, 1, 3613],
     [3614, 3613, 3331, 3331, 3615, 3616, 3617, 3631],
     [3331, 3331, 3618, 3631, 3613, 3331, 3613, 3613],
     [3613, 3613, 1, 3613, 3614, 3613, 3331, 3331],
     [3632, 3633, 3634, 3331, 3331, 3618, 3613, 3331],
     [3613, 3613, 3613, 3613, 1, 3613, 3614, 3613],
     [3331, 3331, 3615, 3616, 3617, 3635, 3331, 3331],
     [3618, 3635, 3613, 3331, 3613, 3613, 3613, 3613],
     [1, 3613, 3614, 3613, 3331, 3331, 3636, 3637],
     [3638, 3331, 3331, 3618, 3613, 3331, 3613, 3613],
     [3613, 3613, 1, 3613, 3614, 3613, 3331, 3331],
     [3615, 3616, 3617, 3639, 3331, 3331, 3618, 3639],
     [3613, 3331, 3613, 3613, 3613, 3613, 1, 3613],
     [3614, 3613, 3331, 3331, 3615, 3616, 3617, 3640],
     [3331, 3331, 3618, 3640, 3613, 3331, 3613, 3613],
     [3613, 3613, 1, 3613, 3614, 3613, 3331, 3331],
     [3641, 3642, 3643, 3331, 3331, 3618, 3613, 3331],
     [3613, 3613, 3613, 3613, 1, 3613, 3614, 3613],
     [3331, 3331, 3615, 3616, 3617, 3644, 3331, 3331],
     [3618, 3644, 3613, 3331, 3613, 3613, 3613, 3613],
     [1, 3613, 3614, 3613, 3331, 3331, 3645, 3646],
     [3647, 3648, 3331, 3331, 3618, 3648, 3613, 3331],
     [3613, 3613, 3613, 3613, 1, 3613, 3614, 3613],
     [3331, 3331, 3649, 3650, 3651, 3331, 3331, 3618],
     [3613, 3331, 3613, 3613, 3613, 3613, 1, 3313],
     [3314, 3315, 3312, 1, 3313, 3314, 3315, 3311],
     [1, 3313, 3314, 3315, 3652, 1, 3313, 3314],
     [3315, 3309, 1, 3653, 3313, 3314, 3315, 3652],
     [3309, 1, 3654, 3313, 3314, 3315, 3309, 3311],
     [1, 3655, 3313, 3314, 3315, 3311, 3312, 1],
     [3313, 3314, 3315, 3312, 1, 3656, 3657, 3658],
     [3659, 3297, 3297, 1, 3293, 3660, 3293, 3295],
     [3295, 3295, 1, 3661, 3662, 3663, 3664, 3297],
     [3297, 1, 3293, 3665, 3293, 3295, 3295, 3295],
     [1, 3666, 3667, 3668, 3669, 3297, 3297, 1],
     [3293, 3296, 3670, 3671, 3672, 3673, 3293, 3295],
     [3295, 3295, 1, 3293, 3296, 3670, 3671, 3672],
     [3673, 3293, 3669, 3295, 3295, 1, 3293, 3296],
     [3670, 3671, 3672, 3673, 3293, 3666, 3295, 3295],
     [1, 3293, 3296, 3674, 3670, 3671, 3672, 3673],
     [3293, 3669, 3666, 3295, 3295, 1, 3293, 3296],
     [3670, 3671, 3672, 3673, 3293, 3666, 3295, 3295],
     [3295, 1, 3293, 3665, 3293, 3664, 3295, 3295],
     [1, 3293, 3665, 3293, 3661, 3295, 3295, 1],
     [3293, 3665, 3675, 3293, 3664, 3661, 3295, 3295],
     [1, 3293, 3665, 3293, 3661, 3295, 3295, 3295],
     [1, 3293, 3660, 3293, 3659, 3295, 3295, 1],
     [3293, 3660, 3293, 3656, 3295, 3295, 1, 3293],
     [3660, 3676, 3293, 3659, 3656, 3295, 3295, 1],
     [3293, 3660, 3293, 3656, 3295, 3295, 3295, 1],
     [3293, 3294, 3293, 3677, 3295, 3295, 1, 3293],
     [3294, 3293, 3678, 3295, 3295, 1, 3293, 3294],
     [3679, 3293, 3677, 3678, 3295, 3295, 1, 3293],
     [3294, 3293, 3678, 3295, 3295, 3295, 1, 3681],
     [3680, 3680, 3680, 1, 3683, 3682, 3682, 3682],
     [1, 3683, 3684, 3684, 3684, 1, 3683, 3685],
     [3685, 3685, 1, 3683, 1, 3687, 3686, 3686],
     [3686, 1, 3689, 3688, 3688, 3688, 1, 3689],
     [3690, 3690, 3690, 1, 3689, 3691, 3691, 3691],
     [1, 3689, 1, 3693, 3692, 3692, 3692, 1],
     [3695, 3694, 3694, 3694, 1, 3695, 3696, 3696],
     [3696, 1, 3695, 3697, 3697, 3697, 1, 3695],
     [1, 3699, 3698, 3698, 3698, 1, 3701, 3700],
     [3700, 3700, 1, 3701, 3702, 3702, 3702, 1],
     [3701, 3703, 3703, 3703, 1, 3701, 1, 3705],
     [3704, 3704, 3704, 1, 3707, 3706, 3706, 3706],
     [1, 3707, 3708, 3708, 3708, 1, 3707, 3709],
     [3709, 3709, 1, 3707, 1, 3711, 3710, 3710],
     [3710, 1, 3713, 3712, 3712, 3712, 1, 3713],
     [3714, 3714, 3714, 1, 3713, 3715, 3715, 3715],
     [1, 3713, 1, 3716, 3717, 3718, 3720, 3719],
     [3721, 3721, 1, 3722, 3724, 3723, 3723, 3723],
     [1, 3725, 3726, 3727, 3728, 1, 3729, 1],
     [3730, 3731, 3732, 3733, 1, 3734, 1, 3735],
     [3736, 3737, 3738, 1, 3739, 1, 3740, 3741],
     [3742, 3743, 1, 3739, 3738, 1, 3739, 3735],
     [1, 3744, 3739, 3738, 3735, 1, 3739, 3735],
     [1, 3734, 3733, 1, 3734, 3730, 1, 3734],
     [3745, 3733, 3730, 1, 3734, 3730, 1, 3729],
     [3728, 1, 3729, 3725, 1, 3729, 3746, 3728],
     [3725, 1, 3729, 3725, 1, 3724, 3747, 3747],
     [3747, 1, 3724, 3748, 3748, 3748, 1, 3724],
     [1, 3735, 3749, 3749, 3749, 1, 3739, 3750],
     [3750, 3750, 1, 3739, 3751, 3751, 3751, 1],
     [3739, 3735, 3735, 3735, 1, 3722, 3724, 3752],
     [3723, 3723, 1, 3722, 3724, 3753, 3747, 3747],
     [1, 3722, 3724, 3748, 3748, 3748, 1, 3722],
     [3754, 3724, 3752, 3755, 3723, 3723, 1, 3722],
     [3724, 3753, 3747, 3747, 3747, 1, 3722, 3724],
     [3747, 3747, 3747, 1, 3722, 3724, 3755, 3723],
     [3723, 1, 3739, 3749, 3749, 3749, 1, 3724],
     [3723, 3723, 3723, 1, 3756, 3757, 3758, 3739],
     [3759, 3760, 3760, 1, 3722, 3762, 3739, 3761],
     [3761, 3761, 1, 3762, 3739, 3763, 3763, 3763],
     [1, 3762, 3739, 3764, 3764, 3764, 1, 3762],
     [3739, 1, 3749, 3749, 3749, 1, 3722, 3762],
     [3739, 3765, 3761, 3761, 1, 3722, 3762, 3739],
     [3766, 3763, 3763, 1, 3722, 3762, 3739, 3764],
     [3764, 3764, 1, 3722, 3767, 3762, 3739, 3765],
     [3768, 3761, 3761, 1, 3722, 3762, 3739, 3766],
     [3763, 3763, 3763, 1, 3722, 3762, 3739, 3763],
     [3763, 3763, 1, 3722, 3762, 3739, 3768, 3761],
     [3761, 1, 3762, 3739, 3761, 3761, 3761, 1],
     [3769, 3770, 3771, 3739, 3772, 3773, 3773, 1],
     [3722, 3775, 3739, 3774, 3774, 3774, 1, 3775],
     [3739, 3776, 3776, 3776, 1, 3775, 3739, 3777],
     [3777, 3777, 1, 3775, 3739, 1, 3756, 3757],
     [3758, 3759, 3760, 3760, 1, 3722, 3775, 3739],
     [3778, 3774, 3774, 1, 3722, 3775, 3739, 3779],
     [3776, 3776, 1, 3722, 3775, 3739, 3777, 3777],
     [3777, 1, 3722, 3780, 3775, 3739, 3778, 3781],
     [3774, 3774, 1, 3722, 3775, 3739, 3779, 3776],
     [3776, 3776, 1, 3722, 3775, 3739, 3776, 3776],
     [3776, 1, 3722, 3775, 3739, 3781, 3774, 3774],
     [1, 3775, 3739, 3774, 3774, 3774, 1, 3782],
     [3783, 3784, 3739, 3785, 3786, 3786, 1, 3722],
     [3788, 3739, 3787, 3787, 3787, 1, 3788, 3739],
     [3789, 3789, 3789, 1, 3788, 3739, 3790, 3790],
     [3790, 1, 3788, 3739, 1, 3769, 3770, 3771],
     [3772, 3773, 3773, 1, 3722, 3788, 3739, 3791],
     [3787, 3787, 1, 3722, 3788, 3739, 3792, 3789],
     [3789, 1, 3722, 3788, 3739, 3790, 3790, 3790],
     [1, 3722, 3793, 3788, 3739, 3791, 3794, 3787],
     [3787, 1, 3722, 3788, 3739, 3792, 3789, 3789],
     [3789, 1, 3722, 3788, 3739, 3789, 3789, 3789],
     [1, 3722, 3788, 3739, 3794, 3787, 3787, 1],
     [3788, 3739, 3787, 3787, 3787, 1, 3795, 3796],
     [3797, 3739, 3798, 3799, 3799, 1, 3722, 3801],
     [3739, 3800, 3800, 3800, 1, 3801, 3739, 3802],
     [3802, 3802, 1, 3801, 3739, 3803, 3803, 3803],
     [1, 3801, 3739, 1, 3782, 3783, 3784, 3785],
     [3786, 3786, 1, 3722, 3801, 3739, 3804, 3800],
     [3800, 1, 3722, 3801, 3739, 3805, 3802, 3802],
     [1, 3722, 3801, 3739, 3803, 3803, 3803, 1]]"

definition smp_indicies_22 :: "int list list" where
  "smp_indicies_22 =
    [[3722, 3806, 3801, 3739, 3804, 3807, 3800, 3800],
     [1, 3722, 3801, 3739, 3805, 3802, 3802, 3802],
     [1, 3722, 3801, 3739, 3802, 3802, 3802, 1],
     [3722, 3801, 3739, 3807, 3800, 3800, 1, 3801],
     [3739, 3800, 3800, 3800, 1, 3808, 3809, 3810],
     [3739, 3811, 3812, 3812, 1, 3722, 3814, 3739],
     [3813, 3813, 3813, 1, 3814, 3739, 3815, 3815],
     [3815, 1, 3814, 3739, 3816, 3816, 3816, 1],
     [3814, 3739, 1, 3795, 3796, 3797, 3798, 3799],
     [3799, 1, 3722, 3814, 3739, 3817, 3813, 3813],
     [1, 3722, 3814, 3739, 3818, 3815, 3815, 1],
     [3722, 3814, 3739, 3816, 3816, 3816, 1, 3722],
     [3819, 3814, 3739, 3817, 3820, 3813, 3813, 1],
     [3722, 3814, 3739, 3818, 3815, 3815, 3815, 1],
     [3722, 3814, 3739, 3815, 3815, 3815, 1, 3722],
     [3814, 3739, 3820, 3813, 3813, 1, 3814, 3739],
     [3813, 3813, 3813, 1, 3821, 1, 3822, 3823],
     [3824, 3739, 3825, 3826, 3826, 1, 3722, 3828],
     [3739, 3827, 3827, 3827, 1, 3828, 3739, 3829],
     [3829, 3829, 1, 3828, 3739, 3830, 3830, 3830],
     [1, 3828, 3739, 1, 3808, 3809, 3810, 3811],
     [3812, 3812, 1, 3722, 3828, 3739, 3831, 3827],
     [3827, 1, 3722, 3828, 3739, 3832, 3829, 3829],
     [1, 3722, 3828, 3739, 3830, 3830, 3830, 1],
     [3722, 3833, 3828, 3739, 3831, 3834, 3827, 3827],
     [1, 3722, 3828, 3739, 3832, 3829, 3829, 3829],
     [1, 3722, 3828, 3739, 3829, 3829, 3829, 1],
     [3722, 3828, 3739, 3834, 3827, 3827, 1, 3828],
     [3739, 3827, 3827, 3827, 1, 3281, 3282, 3835],
     [3836, 3283, 3281, 3281, 3281, 3284, 3835, 3281],
     [3281, 3837, 3837, 3837, 1, 3281, 3282, 3835],
     [3283, 3281, 3281, 3281, 3284, 3835, 3281, 3281],
     [3837, 3837, 3837, 1, 3281, 3282, 3835, 3838],
     [3283, 3281, 3281, 3281, 3284, 3835, 3281, 3281],
     [3837, 3837, 3837, 1, 3281, 3282, 3283, 3281],
     [3281, 3281, 3284, 3281, 3281, 3281, 3837, 3839],
     [3839, 1, 3281, 3282, 3840, 3841, 3842, 3843],
     [3281, 3302, 3844, 3284, 3840, 3281, 3281, 3839],
     [3839, 3839, 1, 3281, 3282, 3840, 3283, 3281],
     [3281, 3281, 3284, 3840, 3281, 3281, 3839, 3839],
     [3839, 1, 3281, 3282, 3842, 3843, 3281, 3302],
     [3844, 3284, 3281, 3281, 3281, 3837, 3839, 3839],
     [1, 3283, 3286, 3845, 3847, 3283, 3284, 3283],
     [3283, 3283, 3846, 3848, 3283, 3283, 1, 3283],
     [3286, 3849, 3283, 3284, 3283, 3283, 3283, 3850],
     [3283, 3283, 1, 3283, 3286, 3851, 3283, 3284],
     [3283, 3283, 3283, 3852, 3283, 3283, 1, 3283],
     [3286, 3283, 3283, 3284, 3283, 3283, 3283, 3853],
     [3283, 3283, 1, 3283, 3286, 3313, 3314, 3315],
     [3284, 3283, 3283, 3283, 3283, 3283, 3283, 1],
     [3283, 3286, 3313, 3314, 3315, 3284, 3283, 3283],
     [3283, 3853, 3283, 3283, 1, 3283, 3286, 3313],
     [3314, 3315, 3284, 3283, 3283, 3283, 3852, 3283],
     [3283, 1, 3283, 3286, 3313, 3314, 3315, 3284],
     [3283, 3283, 3283, 3854, 3283, 3283, 1, 3283],
     [3286, 3313, 3314, 3315, 3284, 3283, 3283, 3283],
     [3850, 3283, 3283, 1, 3283, 3286, 3855, 3313],
     [3314, 3315, 3284, 3283, 3283, 3283, 3854, 3850],
     [3283, 3283, 1, 3283, 3286, 3856, 3313, 3314],
     [3315, 3284, 3283, 3283, 3283, 3850, 3852, 3283],
     [3283, 1, 3283, 3286, 3857, 3313, 3314, 3315],
     [3284, 3283, 3283, 3283, 3852, 3853, 3283, 3283],
     [1, 3283, 3286, 3313, 3314, 3315, 3284, 3283],
     [3283, 3283, 3853, 3283, 3283, 3283, 1, 3858],
     [3281, 3859, 3281, 3860, 3281, 3281, 3281, 3284],
     [3861, 3862, 3863, 3316, 3316, 3858, 3861, 3862],
     [3863, 3858, 3858, 3858, 3858, 1, 3864, 3281],
     [3865, 3281, 3866, 3867, 3868, 3325, 3869, 3284],
     [3321, 3321, 3864, 3864, 3864, 3864, 3864, 1],
     [3870, 3870, 3870, 1, 3864, 3864, 3864, 1],
     [3866, 3871, 3283, 3321, 3321, 3323, 3872, 3325],
     [3326, 3284, 3321, 3321, 3866, 3866, 3866, 3866],
     [3866, 1, 3873, 3873, 3873, 1, 3866, 3866],
     [3866, 1, 3874, 3875, 3283, 3328, 3328, 3323],
     [3876, 3325, 3326, 3284, 3328, 3328, 3874, 3874],
     [3874, 3874, 3874, 1, 3877, 3878, 3283, 3331],
     [3331, 3333, 3283, 3334, 3335, 3284, 3331, 3331],
     [3877, 3877, 3877, 3877, 3877, 1, 3879, 3879],
     [3879, 1, 3877, 3877, 3877, 1, 3874, 3875],
     [3283, 3328, 3328, 3283, 3284, 3328, 3328, 3874],
     [3874, 3874, 3874, 3874, 1, 3880, 3281, 3881],
     [3281, 3874, 3867, 3882, 3325, 3869, 3284, 3328],
     [3328, 3880, 3880, 3880, 3880, 3880, 1, 3883],
     [3281, 3884, 3281, 3877, 3885, 3281, 3334, 3886],
     [3284, 3331, 3331, 3883, 3883, 3883, 3883, 3883],
     [1, 3887, 3887, 3887, 1, 3883, 3883, 3883],
     [1, 3888, 3888, 3889, 3281, 3890, 3281, 3281],
     [3284, 3553, 3553, 3888, 3888, 3281, 3888, 3888],
     [3888, 1, 3888, 3888, 3889, 3281, 3890, 3281],
     [3891, 3284, 3553, 3553, 3888, 3888, 3281, 3888],
     [3888, 3888, 1, 3892, 3892, 3892, 1, 3888],
     [3888, 3888, 1, 3890, 3893, 3283, 3283, 3553],
     [3553, 3894, 3553, 3284, 3553, 3553, 3890, 3890],
     [3890, 3890, 3890, 1, 3895, 3895, 3895, 1],
     [3890, 3890, 3890, 1, 3894, 3896, 3897, 3283],
     [3555, 3555, 3283, 3559, 3555, 3284, 3555, 3555],
     [3894, 3894, 3894, 3894, 3894, 1, 3898, 3898],
     [3898, 1, 3894, 3894, 3894, 1, 3890, 3893],
     [3283, 3283, 3553, 3553, 3283, 3553, 3284, 3553],
     [3553, 3890, 3890, 3890, 3890, 3890, 1, 3891],
     [3281, 3899, 3900, 3281, 3894, 3281, 3281, 3559],
     [3284, 3555, 3555, 3891, 3891, 3891, 3891, 3891],
     [1, 3901, 3901, 3901, 1, 3891, 3891, 3891],
     [1, 3880, 3281, 3881, 3281, 3874, 3281, 3281],
     [3281, 3284, 3328, 3328, 3880, 3880, 3880, 3880],
     [3880, 1, 3864, 3281, 3865, 3281, 3866, 3867],
     [3868, 3325, 3869, 3284, 3902, 3321, 3321, 3864],
     [3902, 3864, 3864, 3864, 3864, 1, 3864, 3281],
     [3865, 3281, 3866, 3903, 3904, 3564, 3905, 3284],
     [3321, 3321, 3864, 3864, 3864, 3864, 3864, 1],
     [3906, 3281, 3907, 3906, 3281, 3880, 3874, 3867],
     [3882, 3325, 3869, 3284, 3328, 3328, 3568, 3906],
     [3880, 3906, 3906, 3906, 1, 3908, 3281, 3909],
     [3908, 3281, 3883, 3877, 3885, 3281, 3334, 3886],
     [3284, 3331, 3331, 3568, 3908, 3883, 3908, 3908],
     [3908, 1, 3568, 3568, 3568, 3572, 3573, 3574],
     [3568, 3568, 3568, 3910, 3910, 3568, 3568, 3910],
     [3568, 1, 3568, 3568, 3568, 3572, 3573, 3574],
     [3568, 3568, 3568, 3908, 3908, 3568, 3568, 3908],
     [3568, 1, 3864, 3281, 3865, 3281, 3866, 3867],
     [3868, 3325, 3869, 3284, 3911, 3912, 3321, 3321],
     [3864, 3911, 3912, 3864, 3864, 3864, 3864, 1],
     [3864, 3281, 3865, 3281, 3866, 3913, 3914, 3579],
     [3915, 3284, 3321, 3321, 3864, 3864, 3864, 3864],
     [3864, 1, 3864, 3281, 3865, 3281, 3866, 3867],
     [3868, 3325, 3869, 3284, 3916, 3321, 3321, 3864],
     [3916, 3864, 3864, 3864, 3864, 1, 3864, 3281],
     [3865, 3281, 3866, 3867, 3868, 3325, 3869, 3284],
     [3917, 3321, 3321, 3864, 3917, 3864, 3864, 3864],
     [3864, 1, 3864, 3281, 3865, 3281, 3866, 3867],
     [3918, 3325, 3869, 3284, 3321, 3321, 3864, 3864],
     [3864, 3864, 3864, 1, 3919, 3281, 3920, 3919],
     [3281, 3880, 3874, 3867, 3882, 3325, 3869, 3284],
     [3328, 3328, 3586, 3919, 3880, 3919, 3919, 3919],
     [1, 3921, 3281, 3922, 3921, 3281, 3883, 3877],
     [3923, 3281, 3590, 3924, 3284, 3331, 3331, 3592],
     [3921, 3883, 3921, 3921, 3921, 1, 3592, 3592],
     [3592, 3594, 3595, 3596, 3592, 3592, 3592, 3925],
     [3925, 3592, 3592, 3925, 3592, 1, 3592, 3592],
     [3592, 3594, 3595, 3596, 3592, 3592, 3592, 3921],
     [3921, 3592, 3592, 3921, 3592, 1, 3864, 3281],
     [3865, 3281, 3866, 3867, 3868, 3325, 3869, 3284],
     [3926, 3321, 3321, 3864, 3926, 3864, 3864, 3864],
     [3864, 1, 3864, 3281, 3865, 3281, 3866, 3867],
     [3868, 3325, 3869, 3284, 3927, 3321, 3321, 3864],
     [3927, 3864, 3864, 3864, 3864, 1, 3864, 3281],
     [3865, 3281, 3866, 3867, 3868, 3325, 3869, 3284],
     [3928, 3321, 3321, 3864, 3928, 3864, 3864, 3864],
     [3864, 1, 3864, 3281, 3865, 3281, 3866, 3867],
     [3868, 3325, 3869, 3284, 3929, 3321, 3321, 3864]]"

definition smp_indicies_23 :: "int list list" where
  "smp_indicies_23 =
    [[3929, 3864, 3864, 3864, 3864, 1, 3864, 3281],
     [3865, 3281, 3866, 3867, 3868, 3325, 3869, 3284],
     [3930, 3321, 3321, 3864, 3930, 3864, 3864, 3864],
     [3864, 1, 3864, 3281, 3865, 3281, 3866, 3867],
     [3868, 3325, 3869, 3284, 3931, 3321, 3321, 3864],
     [3931, 3864, 3864, 3864, 3864, 1, 3864, 3281],
     [3865, 3281, 3866, 3867, 3868, 3325, 3869, 3284],
     [3932, 3321, 3321, 3864, 3932, 3864, 3864, 3864],
     [3864, 1, 3864, 3281, 3865, 3281, 3866, 3867],
     [3868, 3325, 3869, 3284, 3933, 3321, 3321, 3864],
     [3933, 3864, 3864, 3864, 3864, 1, 3864, 3281],
     [3865, 3281, 3866, 3867, 3934, 3325, 3869, 3284],
     [3321, 3321, 3864, 3864, 3864, 3864, 3864, 1],
     [3935, 3281, 3936, 3935, 3281, 3880, 3874, 3867],
     [3882, 3325, 3869, 3284, 3937, 3938, 3939, 3940],
     [3328, 3328, 3612, 3937, 3938, 3939, 3940, 3935],
     [3880, 3935, 3935, 3935, 1, 3941, 3281, 3942],
     [3941, 3281, 3883, 3877, 3943, 3281, 3616, 3944],
     [3284, 3331, 3331, 3618, 3941, 3883, 3941, 3941],
     [3941, 1, 3618, 3618, 3618, 3620, 3621, 3622],
     [3618, 3618, 3618, 3945, 3945, 3618, 3618, 3945],
     [3618, 1, 3618, 3618, 3618, 3620, 3621, 3622],
     [3618, 3618, 3618, 3941, 3941, 3618, 3618, 3941],
     [3618, 1, 3941, 3281, 3942, 3941, 3281, 3883],
     [3877, 3943, 3281, 3616, 3944, 3284, 3946, 3331],
     [3331, 3618, 3946, 3941, 3883, 3941, 3941, 3941],
     [1, 3941, 3281, 3942, 3941, 3281, 3883, 3877],
     [3943, 3281, 3616, 3944, 3284, 3947, 3331, 3331],
     [3618, 3947, 3941, 3883, 3941, 3941, 3941, 1],
     [3941, 3281, 3942, 3941, 3281, 3883, 3877, 3943],
     [3281, 3616, 3944, 3284, 3948, 3331, 3331, 3618],
     [3948, 3941, 3883, 3941, 3941, 3941, 1, 3941],
     [3281, 3942, 3941, 3281, 3883, 3877, 3949, 3281],
     [3627, 3950, 3284, 3331, 3331, 3618, 3941, 3883],
     [3941, 3941, 3941, 1, 3941, 3281, 3942, 3941],
     [3281, 3883, 3877, 3943, 3281, 3616, 3944, 3284],
     [3951, 3952, 3331, 3331, 3618, 3951, 3952, 3941],
     [3883, 3941, 3941, 3941, 1, 3941, 3281, 3942],
     [3941, 3281, 3883, 3877, 3943, 3281, 3616, 3944],
     [3284, 3953, 3331, 3331, 3618, 3953, 3941, 3883],
     [3941, 3941, 3941, 1, 3941, 3281, 3942, 3941],
     [3281, 3883, 3877, 3954, 3281, 3633, 3955, 3284],
     [3331, 3331, 3618, 3941, 3883, 3941, 3941, 3941],
     [1, 3941, 3281, 3942, 3941, 3281, 3883, 3877],
     [3943, 3281, 3616, 3944, 3284, 3956, 3331, 3331],
     [3618, 3956, 3941, 3883, 3941, 3941, 3941, 1],
     [3941, 3281, 3942, 3941, 3281, 3883, 3877, 3957],
     [3281, 3637, 3958, 3284, 3331, 3331, 3618, 3941],
     [3883, 3941, 3941, 3941, 1, 3941, 3281, 3942],
     [3941, 3281, 3883, 3877, 3943, 3281, 3616, 3944],
     [3284, 3959, 3331, 3331, 3618, 3959, 3941, 3883],
     [3941, 3941, 3941, 1, 3941, 3281, 3942, 3941],
     [3281, 3883, 3877, 3943, 3281, 3616, 3944, 3284],
     [3960, 3331, 3331, 3618, 3960, 3941, 3883, 3941],
     [3941, 3941, 1, 3941, 3281, 3942, 3941, 3281],
     [3883, 3877, 3961, 3281, 3642, 3962, 3284, 3331],
     [3331, 3618, 3941, 3883, 3941, 3941, 3941, 1],
     [3941, 3281, 3942, 3941, 3281, 3883, 3877, 3943],
     [3281, 3616, 3944, 3284, 3963, 3331, 3331, 3618],
     [3963, 3941, 3883, 3941, 3941, 3941, 1, 3941],
     [3281, 3942, 3941, 3281, 3883, 3877, 3964, 3281],
     [3646, 3965, 3284, 3966, 3331, 3331, 3618, 3966],
     [3941, 3883, 3941, 3941, 3941, 1, 3941, 3281],
     [3942, 3941, 3281, 3883, 3877, 3967, 3281, 3650],
     [3968, 3284, 3331, 3331, 3618, 3941, 3883, 3941],
     [3941, 3941, 1, 3281, 3282, 3969, 3970, 3971],
     [3283, 3281, 3281, 3281, 3284, 3281, 3281, 3281],
     [3972, 3839, 3839, 1, 3281, 3282, 3835, 3973],
     [3283, 3281, 3281, 3281, 3284, 3835, 3281, 3281],
     [3837, 3837, 3837, 1, 3281, 3282, 3974, 3975],
     [3976, 3283, 3281, 3281, 3281, 3284, 3281, 3281],
     [3281, 3977, 3839, 3839, 1, 3281, 3282, 3835],
     [3978, 3283, 3281, 3281, 3281, 3284, 3835, 3281],
     [3281, 3837, 3837, 3837, 1, 3281, 3282, 3979],
     [3980, 3981, 3283, 3281, 3281, 3281, 3284, 3281],
     [3281, 3281, 3982, 3839, 3839, 1, 3281, 3282],
     [3835, 3838, 3983, 3984, 3281, 3672, 3985, 3284],
     [3835, 3281, 3281, 3837, 3837, 3837, 1, 3281],
     [3282, 3835, 3838, 3983, 3984, 3281, 3672, 3985],
     [3284, 3835, 3281, 3281, 3982, 3837, 3837, 1],
     [3281, 3282, 3835, 3838, 3983, 3984, 3281, 3672],
     [3985, 3284, 3835, 3281, 3281, 3979, 3837, 3837],
     [1, 3281, 3282, 3835, 3838, 3986, 3983, 3984],
     [3281, 3672, 3985, 3284, 3835, 3281, 3281, 3982],
     [3979, 3837, 3837, 1, 3281, 3282, 3835, 3838],
     [3983, 3984, 3281, 3672, 3985, 3284, 3835, 3281],
     [3281, 3979, 3837, 3837, 3837, 1, 3281, 3282],
     [3835, 3978, 3283, 3281, 3281, 3281, 3284, 3835],
     [3281, 3281, 3977, 3837, 3837, 1, 3281, 3282],
     [3835, 3978, 3283, 3281, 3281, 3281, 3284, 3835],
     [3281, 3281, 3974, 3837, 3837, 1, 3281, 3282],
     [3835, 3978, 3987, 3283, 3281, 3281, 3281, 3284],
     [3835, 3281, 3281, 3977, 3974, 3837, 3837, 1],
     [3281, 3282, 3835, 3978, 3283, 3281, 3281, 3281],
     [3284, 3835, 3281, 3281, 3974, 3837, 3837, 3837],
     [1, 3281, 3282, 3835, 3973, 3283, 3281, 3281],
     [3281, 3284, 3835, 3281, 3281, 3972, 3837, 3837],
     [1, 3281, 3282, 3835, 3973, 3283, 3281, 3281],
     [3281, 3284, 3835, 3281, 3281, 3969, 3837, 3837],
     [1, 3281, 3282, 3835, 3973, 3988, 3283, 3281],
     [3281, 3281, 3284, 3835, 3281, 3281, 3972, 3969],
     [3837, 3837, 1, 3281, 3282, 3835, 3973, 3283],
     [3281, 3281, 3281, 3284, 3835, 3281, 3281, 3969],
     [3837, 3837, 3837, 1, 3281, 3282, 3835, 3836],
     [3283, 3281, 3281, 3281, 3284, 3835, 3281, 3281],
     [3989, 3837, 3837, 1, 3281, 3282, 3835, 3836],
     [3283, 3281, 3281, 3281, 3284, 3835, 3281, 3281],
     [3990, 3837, 3837, 1, 3281, 3282, 3835, 3836],
     [3991, 3283, 3281, 3281, 3281, 3284, 3835, 3281],
     [3281, 3989, 3990, 3837, 3837, 1, 3281, 3282],
     [3835, 3836, 3283, 3281, 3281, 3281, 3284, 3835],
     [3281, 3281, 3990, 3837, 3837, 3837, 1, 3992],
     [1, 293, 294, 293, 289, 289, 289, 282],
     [295, 3993, 3993, 289, 289, 289, 289, 289],
     [289, 1, 293, 294, 293, 289, 289, 289],
     [282, 295, 3994, 3994, 289, 289, 289, 289],
     [289, 289, 1, 3995, 3996, 3995, 289, 289],
     [289, 282, 3997, 289, 289, 289, 289, 289],
     [289, 1, 3995, 3998, 3995, 282, 3997, 1],
     [3999, 1, 4000, 4000, 1, 4000, 4000, 282],
     [3997, 1, 3997, 4001, 3997, 4002, 301, 4002],
     [4002, 302, 4002, 4002, 4002, 4002, 4002, 4002],
     [1, 4003, 1, 4004, 4004, 1, 4004, 4004],
     [4002, 301, 4002, 4002, 302, 4002, 4002, 4002],
     [4002, 4002, 4002, 1, 4005, 4006, 4005, 4007],
     [4007, 4007, 4008, 4007, 4007, 4007, 4007, 4007],
     [4007, 1, 4009, 1, 4000, 46, 4000, 47],
     [47, 47, 48, 49, 50, 51, 52, 53],
     [54, 55, 56, 57, 58, 48, 49, 50],
     [51, 52, 53, 54, 55, 56, 57, 58],
     [47, 47, 47, 47, 47, 47, 1, 248],
     [4010, 249, 248, 248, 248, 248, 248, 1],
     [4011, 4011, 4011, 1, 248, 248, 248, 1],
     [249, 248, 279, 1, 249, 248, 278, 1],
     [249, 248, 274, 1, 249, 248, 276, 1],
     [4012, 249, 248, 274, 276, 1, 4013, 249],
     [248, 276, 278, 1, 4014, 249, 248, 278],
     [279, 1, 249, 248, 279, 1, 4015, 4016],
     [4017, 4018, 263, 263, 1, 264, 4019, 264],
     [266, 266, 266, 1, 4020, 4021, 4022, 4023],
     [263, 263, 1, 264, 4024, 264, 266, 266],
     [266, 1, 4025, 4026, 4027, 4028, 263, 263],
     [1, 264, 267, 270, 249, 248, 264, 266],
     [266, 266, 1, 264, 267, 270, 249, 248],
     [264, 4028, 266, 266, 1, 264, 267, 270],
     [249, 248, 264, 4025, 266, 266, 1, 264],
     [267, 4029, 270, 249, 248, 264, 4028, 4025],
     [266, 266, 1, 264, 267, 270, 249, 248],
     [264, 4025, 266, 266, 266, 1, 264, 4024],
     [264, 4023, 266, 266, 1, 264, 4024, 264]]"

definition smp_indicies_24 :: "int list list" where
  "smp_indicies_24 =
    [[4020, 266, 266, 1, 264, 4024, 4030, 264],
     [4023, 4020, 266, 266, 1, 264, 4024, 264],
     [4020, 266, 266, 266, 1, 264, 4019, 264],
     [4018, 266, 266, 1, 264, 4019, 264, 4015],
     [266, 266, 1, 264, 4019, 4031, 264, 4018],
     [4015, 266, 266, 1, 264, 4019, 264, 4015],
     [266, 266, 266, 1, 264, 265, 264, 262],
     [266, 266, 1, 264, 265, 264, 259, 266],
     [266, 1, 264, 265, 4032, 264, 262, 259],
     [266, 266, 1, 264, 265, 264, 259, 266],
     [266, 266, 1, 4034, 4033, 4033, 4033, 1],
     [4036, 4035, 4035, 4035, 1, 4036, 4037, 4037],
     [4037, 1, 4036, 4038, 4038, 4038, 1, 4036],
     [1, 4040, 4039, 4039, 4039, 1, 4042, 4041],
     [4041, 4041, 1, 4042, 4043, 4043, 4043, 1],
     [4042, 4044, 4044, 4044, 1, 4042, 1, 4046],
     [4045, 4045, 4045, 1, 4048, 4047, 4047, 4047],
     [1, 4048, 4049, 4049, 4049, 1, 4048, 4050],
     [4050, 4050, 1, 4048, 1, 4052, 4051, 4051],
     [4051, 1, 4054, 4053, 4053, 4053, 1, 4054],
     [4055, 4055, 4055, 1, 4054, 4056, 4056, 4056],
     [1, 4054, 1, 4058, 4057, 4057, 4057, 1],
     [4060, 4059, 4059, 4059, 1, 4060, 4061, 4061],
     [4061, 1, 4060, 4062, 4062, 4062, 1, 4060],
     [1, 4064, 4063, 4063, 4063, 1, 4066, 4065],
     [4065, 4065, 1, 4066, 4067, 4067, 4067, 1],
     [4066, 4068, 4068, 4068, 1, 4066, 1, 4069],
     [4070, 4071, 4073, 4072, 4074, 4074, 1, 4075],
     [4077, 4076, 4076, 4076, 1, 4078, 4079, 4080],
     [4081, 1, 4082, 1, 4083, 4084, 4085, 4086],
     [1, 4087, 1, 4088, 4089, 4090, 4091, 1],
     [4092, 1, 270, 249, 248, 1, 4092, 4091],
     [1, 4092, 4088, 1, 4093, 4092, 4091, 4088],
     [1, 4092, 4088, 1, 4087, 4086, 1, 4087],
     [4083, 1, 4087, 4094, 4086, 4083, 1, 4087],
     [4083, 1, 4082, 4081, 1, 4082, 4078, 1],
     [4082, 4095, 4081, 4078, 1, 4082, 4078, 1],
     [4077, 4096, 4096, 4096, 1, 4077, 4097, 4097],
     [4097, 1, 4077, 1, 4088, 4098, 4098, 4098],
     [1, 4092, 4099, 4099, 4099, 1, 4092, 4100],
     [4100, 4100, 1, 4092, 4088, 4088, 4088, 1],
     [4075, 4077, 4101, 4076, 4076, 1, 4075, 4077],
     [4102, 4096, 4096, 1, 4075, 4077, 4097, 4097],
     [4097, 1, 4075, 4103, 4077, 4101, 4104, 4076],
     [4076, 1, 4075, 4077, 4102, 4096, 4096, 4096],
     [1, 4075, 4077, 4096, 4096, 4096, 1, 4075],
     [4077, 4104, 4076, 4076, 1, 4092, 4098, 4098],
     [4098, 1, 4077, 4076, 4076, 4076, 1, 4105],
     [4106, 4107, 4092, 4108, 4109, 4109, 1, 4075],
     [4111, 4092, 4110, 4110, 4110, 1, 4111, 4092],
     [4112, 4112, 4112, 1, 4111, 4092, 4113, 4113],
     [4113, 1, 4111, 4092, 1, 4098, 4098, 4098],
     [1, 4075, 4111, 4092, 4114, 4110, 4110, 1],
     [4075, 4111, 4092, 4115, 4112, 4112, 1, 4075],
     [4111, 4092, 4113, 4113, 4113, 1, 4075, 4116],
     [4111, 4092, 4114, 4117, 4110, 4110, 1, 4075],
     [4111, 4092, 4115, 4112, 4112, 4112, 1, 4075],
     [4111, 4092, 4112, 4112, 4112, 1, 4075, 4111],
     [4092, 4117, 4110, 4110, 1, 4111, 4092, 4110],
     [4110, 4110, 1, 4118, 4119, 4120, 4092, 4121],
     [4122, 4122, 1, 4075, 4124, 4092, 4123, 4123],
     [4123, 1, 4124, 4092, 4125, 4125, 4125, 1],
     [4124, 4092, 4126, 4126, 4126, 1, 4124, 4092],
     [1, 4105, 4106, 4107, 4108, 4109, 4109, 1],
     [4075, 4124, 4092, 4127, 4123, 4123, 1, 4075],
     [4124, 4092, 4128, 4125, 4125, 1, 4075, 4124],
     [4092, 4126, 4126, 4126, 1, 4075, 4129, 4124],
     [4092, 4127, 4130, 4123, 4123, 1, 4075, 4124],
     [4092, 4128, 4125, 4125, 4125, 1, 4075, 4124],
     [4092, 4125, 4125, 4125, 1, 4075, 4124, 4092],
     [4130, 4123, 4123, 1, 4124, 4092, 4123, 4123],
     [4123, 1, 4131, 4132, 4133, 4092, 4134, 4135],
     [4135, 1, 4075, 4137, 4092, 4136, 4136, 4136],
     [1, 4137, 4092, 4138, 4138, 4138, 1, 4137],
     [4092, 4139, 4139, 4139, 1, 4137, 4092, 1],
     [4118, 4119, 4120, 4121, 4122, 4122, 1, 4075],
     [4137, 4092, 4140, 4136, 4136, 1, 4075, 4137],
     [4092, 4141, 4138, 4138, 1, 4075, 4137, 4092],
     [4139, 4139, 4139, 1, 4075, 4142, 4137, 4092],
     [4140, 4143, 4136, 4136, 1, 4075, 4137, 4092],
     [4141, 4138, 4138, 4138, 1, 4075, 4137, 4092],
     [4138, 4138, 4138, 1, 4075, 4137, 4092, 4143],
     [4136, 4136, 1, 4137, 4092, 4136, 4136, 4136],
     [1, 4144, 4145, 4146, 4092, 4147, 4148, 4148],
     [1, 4075, 4150, 4092, 4149, 4149, 4149, 1],
     [4150, 4092, 4151, 4151, 4151, 1, 4150, 4092],
     [4152, 4152, 4152, 1, 4150, 4092, 1, 4131],
     [4132, 4133, 4134, 4135, 4135, 1, 4075, 4150],
     [4092, 4153, 4149, 4149, 1, 4075, 4150, 4092],
     [4154, 4151, 4151, 1, 4075, 4150, 4092, 4152],
     [4152, 4152, 1, 4075, 4155, 4150, 4092, 4153],
     [4156, 4149, 4149, 1, 4075, 4150, 4092, 4154],
     [4151, 4151, 4151, 1, 4075, 4150, 4092, 4151],
     [4151, 4151, 1, 4075, 4150, 4092, 4156, 4149],
     [4149, 1, 4150, 4092, 4149, 4149, 4149, 1],
     [4157, 4158, 4159, 4092, 4160, 4161, 4161, 1],
     [4075, 4163, 4092, 4162, 4162, 4162, 1, 4163],
     [4092, 4164, 4164, 4164, 1, 4163, 4092, 4165],
     [4165, 4165, 1, 4163, 4092, 1, 4144, 4145],
     [4146, 4147, 4148, 4148, 1, 4075, 4163, 4092],
     [4166, 4162, 4162, 1, 4075, 4163, 4092, 4167],
     [4164, 4164, 1, 4075, 4163, 4092, 4165, 4165],
     [4165, 1, 4075, 4168, 4163, 4092, 4166, 4169],
     [4162, 4162, 1, 4075, 4163, 4092, 4167, 4164],
     [4164, 4164, 1, 4075, 4163, 4092, 4164, 4164],
     [4164, 1, 4075, 4163, 4092, 4169, 4162, 4162],
     [1, 4163, 4092, 4162, 4162, 4162, 1, 4170],
     [1, 4171, 4172, 4173, 4092, 4174, 4175, 4175],
     [1, 4075, 4177, 4092, 4176, 4176, 4176, 1],
     [4177, 4092, 4178, 4178, 4178, 1, 4177, 4092],
     [4179, 4179, 4179, 1, 4177, 4092, 1, 4157],
     [4158, 4159, 4160, 4161, 4161, 1, 4075, 4177],
     [4092, 4180, 4176, 4176, 1, 4075, 4177, 4092],
     [4181, 4178, 4178, 1, 4075, 4177, 4092, 4179],
     [4179, 4179, 1, 4075, 4182, 4177, 4092, 4180],
     [4183, 4176, 4176, 1, 4075, 4177, 4092, 4181],
     [4178, 4178, 4178, 1, 4075, 4177, 4092, 4178],
     [4178, 4178, 1, 4075, 4177, 4092, 4183, 4176],
     [4176, 1, 4177, 4092, 4176, 4176, 4176, 1],
     [4184, 4184, 4184, 1, 244, 244, 244, 1],
     [251, 4185, 248, 249, 248, 252, 251, 251],
     [251, 248, 251, 251, 1, 4186, 4186, 4186],
     [1, 251, 251, 251, 1, 248, 4010, 249],
     [250, 248, 248, 248, 248, 248, 1, 244],
     [245, 246, 4187, 251, 249, 252, 244, 244],
     [244, 244, 244, 1, 4188, 4189, 4190, 251],
     [249, 252, 4191, 4188, 4188, 4188, 4188, 4188],
     [1, 4188, 4189, 4190, 4192, 249, 4193, 4188],
     [4188, 4188, 4188, 4188, 1, 4189, 4194, 4195],
     [4189, 4196, 4189, 4189, 4189, 4189, 4189, 1],
     [4197, 4197, 4197, 1, 4189, 4189, 4189, 1],
     [4195, 4198, 4195, 4196, 4195, 4195, 4195, 4195],
     [4195, 4195, 1, 4199, 4199, 4199, 1, 4195],
     [4195, 4195, 1, 4200, 4201, 4202, 4191, 4203],
     [4204, 4204, 1, 4205, 4206, 4205, 4207, 4207],
     [4207, 1, 4205, 4205, 4207, 4207, 4207, 1],
     [4205, 4208, 4205, 4207, 4207, 4207, 1, 4207],
     [4204, 4204, 1, 4209, 4210, 248, 4211, 249],
     [248, 4209, 4204, 4204, 4204, 1, 4209, 4209],
     [4204, 4204, 4204, 1, 248, 4211, 249, 248],
     [4207, 4204, 4204, 1, 4212, 4214, 4213, 4215],
     [1, 4216, 4217, 1, 4218, 4219, 1, 4220],
     [1, 248, 249, 248, 1, 248, 249, 248],
     [4220, 1, 248, 249, 248, 4219, 1, 248],
     [249, 248, 4215, 1, 248, 249, 248, 4217],
     [1, 248, 4221, 249, 248, 4215, 4217, 1],
     [248, 4222, 249, 248, 4217, 4219, 1, 248],
     [4223, 249, 248, 4219, 4220, 1, 248, 249],
     [248, 4220, 1, 4224, 4225, 4226, 4227, 4204],
     [4204, 1, 4205, 4228, 4205, 4207, 4207, 4207]]"

definition smp_indicies_25 :: "int list list" where
  "smp_indicies_25 =
    [[1, 4229, 4230, 4231, 4232, 4204, 4204, 1],
     [4205, 4233, 4205, 4207, 4207, 4207, 1, 4234],
     [4235, 4236, 4237, 4204, 4204, 1, 4205, 4208],
     [248, 4211, 249, 248, 4205, 4207, 4207, 4207],
     [1, 4205, 4208, 248, 4211, 249, 248, 4205],
     [4237, 4207, 4207, 1, 4205, 4208, 248, 4211],
     [249, 248, 4205, 4234, 4207, 4207, 1, 4205],
     [4208, 248, 4238, 4211, 249, 248, 4205, 4237],
     [4234, 4207, 4207, 1, 4205, 4208, 248, 4211],
     [249, 248, 4205, 4234, 4207, 4207, 4207, 1],
     [4205, 4233, 4205, 4232, 4207, 4207, 1, 4205],
     [4233, 4205, 4229, 4207, 4207, 1, 4205, 4233],
     [4239, 4205, 4232, 4229, 4207, 4207, 1, 4205],
     [4233, 4205, 4229, 4207, 4207, 4207, 1, 4205],
     [4228, 4205, 4227, 4207, 4207, 1, 4205, 4228],
     [4205, 4224, 4207, 4207, 1, 4205, 4228, 4240],
     [4205, 4227, 4224, 4207, 4207, 1, 4205, 4228],
     [4205, 4224, 4207, 4207, 4207, 1, 4205, 4206],
     [4205, 4203, 4207, 4207, 1, 4205, 4206, 4205],
     [4200, 4207, 4207, 1, 4205, 4206, 4241, 4205],
     [4203, 4200, 4207, 4207, 1, 4205, 4206, 4205],
     [4200, 4207, 4207, 4207, 1, 4243, 4242, 4242],
     [4242, 1, 4245, 4244, 4244, 4244, 1, 4245],
     [4246, 4246, 4246, 1, 4245, 4247, 4247, 4247],
     [1, 4245, 1, 4249, 4248, 4248, 4248, 1],
     [4251, 4250, 4250, 4250, 1, 4251, 4252, 4252],
     [4252, 1, 4251, 4253, 4253, 4253, 1, 4251],
     [1, 4255, 4254, 4254, 4254, 1, 4257, 4256],
     [4256, 4256, 1, 4257, 4258, 4258, 4258, 1],
     [4257, 4259, 4259, 4259, 1, 4257, 1, 4261],
     [4260, 4260, 4260, 1, 4263, 4262, 4262, 4262],
     [1, 4263, 4264, 4264, 4264, 1, 4263, 4265],
     [4265, 4265, 1, 4263, 1, 4267, 4266, 4266],
     [4266, 1, 4269, 4268, 4268, 4268, 1, 4269],
     [4270, 4270, 4270, 1, 4269, 4271, 4271, 4271],
     [1, 4269, 1, 4273, 4272, 4272, 4272, 1],
     [4275, 4274, 4274, 4274, 1, 4275, 4276, 4276],
     [4276, 1, 4275, 4277, 4277, 4277, 1, 4275],
     [1, 4278, 4279, 4280, 4282, 4281, 4283, 4283],
     [1, 4284, 4286, 4285, 4285, 4285, 1, 4287],
     [4288, 4289, 4290, 1, 4291, 1, 4292, 4293],
     [4294, 4295, 1, 4296, 1, 4297, 4298, 4299],
     [4300, 1, 4301, 1, 248, 4211, 249, 248],
     [1, 4301, 4300, 1, 4301, 4297, 1, 4302],
     [4301, 4300, 4297, 1, 4301, 4297, 1, 4296],
     [4295, 1, 4296, 4292, 1, 4296, 4303, 4295],
     [4292, 1, 4296, 4292, 1, 4291, 4290, 1],
     [4291, 4287, 1, 4291, 4304, 4290, 4287, 1],
     [4291, 4287, 1, 4286, 4305, 4305, 4305, 1],
     [4286, 4306, 4306, 4306, 1, 4286, 1, 4297],
     [4307, 4307, 4307, 1, 4301, 4308, 4308, 4308],
     [1, 4301, 4309, 4309, 4309, 1, 4301, 4297],
     [4297, 4297, 1, 4284, 4286, 4310, 4285, 4285],
     [1, 4284, 4286, 4311, 4305, 4305, 1, 4284],
     [4286, 4306, 4306, 4306, 1, 4284, 4312, 4286],
     [4310, 4313, 4285, 4285, 1, 4284, 4286, 4311],
     [4305, 4305, 4305, 1, 4284, 4286, 4305, 4305],
     [4305, 1, 4284, 4286, 4313, 4285, 4285, 1],
     [4301, 4307, 4307, 4307, 1, 4286, 4285, 4285],
     [4285, 1, 4314, 4315, 4316, 4301, 4317, 4318],
     [4318, 1, 4284, 4320, 4301, 4319, 4319, 4319],
     [1, 4320, 4301, 4321, 4321, 4321, 1, 4320],
     [4301, 4322, 4322, 4322, 1, 4320, 4301, 1],
     [4307, 4307, 4307, 1, 4284, 4320, 4301, 4323],
     [4319, 4319, 1, 4284, 4320, 4301, 4324, 4321],
     [4321, 1, 4284, 4320, 4301, 4322, 4322, 4322],
     [1, 4284, 4325, 4320, 4301, 4323, 4326, 4319],
     [4319, 1, 4284, 4320, 4301, 4324, 4321, 4321],
     [4321, 1, 4284, 4320, 4301, 4321, 4321, 4321],
     [1, 4284, 4320, 4301, 4326, 4319, 4319, 1],
     [4320, 4301, 4319, 4319, 4319, 1, 4327, 4328],
     [4329, 4301, 4330, 4331, 4331, 1, 4284, 4333],
     [4301, 4332, 4332, 4332, 1, 4333, 4301, 4334],
     [4334, 4334, 1, 4333, 4301, 4335, 4335, 4335],
     [1, 4333, 4301, 1, 4314, 4315, 4316, 4317],
     [4318, 4318, 1, 4284, 4333, 4301, 4336, 4332],
     [4332, 1, 4284, 4333, 4301, 4337, 4334, 4334],
     [1, 4284, 4333, 4301, 4335, 4335, 4335, 1],
     [4284, 4338, 4333, 4301, 4336, 4339, 4332, 4332],
     [1, 4284, 4333, 4301, 4337, 4334, 4334, 4334],
     [1, 4284, 4333, 4301, 4334, 4334, 4334, 1],
     [4284, 4333, 4301, 4339, 4332, 4332, 1, 4333],
     [4301, 4332, 4332, 4332, 1, 4340, 4341, 4342],
     [4301, 4343, 4344, 4344, 1, 4284, 4346, 4301],
     [4345, 4345, 4345, 1, 4346, 4301, 4347, 4347],
     [4347, 1, 4346, 4301, 4348, 4348, 4348, 1],
     [4346, 4301, 1, 4327, 4328, 4329, 4330, 4331],
     [4331, 1, 4284, 4346, 4301, 4349, 4345, 4345],
     [1, 4284, 4346, 4301, 4350, 4347, 4347, 1],
     [4284, 4346, 4301, 4348, 4348, 4348, 1, 4284],
     [4351, 4346, 4301, 4349, 4352, 4345, 4345, 1],
     [4284, 4346, 4301, 4350, 4347, 4347, 4347, 1],
     [4284, 4346, 4301, 4347, 4347, 4347, 1, 4284],
     [4346, 4301, 4352, 4345, 4345, 1, 4346, 4301],
     [4345, 4345, 4345, 1, 4353, 4354, 4355, 4301],
     [4356, 4357, 4357, 1, 4284, 4359, 4301, 4358],
     [4358, 4358, 1, 4359, 4301, 4360, 4360, 4360],
     [1, 4359, 4301, 4361, 4361, 4361, 1, 4359],
     [4301, 1, 4340, 4341, 4342, 4343, 4344, 4344],
     [1, 4284, 4359, 4301, 4362, 4358, 4358, 1],
     [4284, 4359, 4301, 4363, 4360, 4360, 1, 4284],
     [4359, 4301, 4361, 4361, 4361, 1, 4284, 4364],
     [4359, 4301, 4362, 4365, 4358, 4358, 1, 4284],
     [4359, 4301, 4363, 4360, 4360, 4360, 1, 4284],
     [4359, 4301, 4360, 4360, 4360, 1, 4284, 4359],
     [4301, 4365, 4358, 4358, 1, 4359, 4301, 4358],
     [4358, 4358, 1, 4366, 4367, 4368, 4301, 4369],
     [4370, 4370, 1, 4284, 4372, 4301, 4371, 4371],
     [4371, 1, 4372, 4301, 4373, 4373, 4373, 1],
     [4372, 4301, 4374, 4374, 4374, 1, 4372, 4301],
     [1, 4353, 4354, 4355, 4356, 4357, 4357, 1],
     [4284, 4372, 4301, 4375, 4371, 4371, 1, 4284],
     [4372, 4301, 4376, 4373, 4373, 1, 4284, 4372],
     [4301, 4374, 4374, 4374, 1, 4284, 4377, 4372],
     [4301, 4375, 4378, 4371, 4371, 1, 4284, 4372],
     [4301, 4376, 4373, 4373, 4373, 1, 4284, 4372],
     [4301, 4373, 4373, 4373, 1, 4284, 4372, 4301],
     [4378, 4371, 4371, 1, 4372, 4301, 4371, 4371],
     [4371, 1, 4379, 1, 4380, 4381, 4382, 4301],
     [4383, 4384, 4384, 1, 4284, 4386, 4301, 4385],
     [4385, 4385, 1, 4386, 4301, 4387, 4387, 4387],
     [1, 4386, 4301, 4388, 4388, 4388, 1, 4386],
     [4301, 1, 4366, 4367, 4368, 4369, 4370, 4370],
     [1, 4284, 4386, 4301, 4389, 4385, 4385, 1],
     [4284, 4386, 4301, 4390, 4387, 4387, 1, 4284],
     [4386, 4301, 4388, 4388, 4388, 1, 4284, 4391],
     [4386, 4301, 4389, 4392, 4385, 4385, 1, 4284],
     [4386, 4301, 4390, 4387, 4387, 4387, 1, 4284],
     [4386, 4301, 4387, 4387, 4387, 1, 4284, 4386],
     [4301, 4392, 4385, 4385, 1, 4386, 4301, 4385],
     [4385, 4385, 1, 4393, 4393, 4393, 1, 4188],
     [4188, 4188, 1, 4192, 4394, 248, 249, 248],
     [4193, 4192, 4192, 4192, 248, 4192, 4192, 1],
     [4395, 4395, 4395, 1, 4192, 4192, 4192, 1],
     [248, 4010, 249, 4191, 248, 248, 248, 248],
     [248, 1, 242, 243, 4396, 4396, 242, 242],
     [242, 242, 1, 242, 243, 4397, 4397, 242],
     [242, 242, 242, 1, 242, 4398, 4399, 4399],
     [242, 242, 242, 242, 1, 4400, 4401, 4402],
     [4403, 4404, 4400, 4400, 4400, 4407, 4400, 4400],
     [4400, 4405, 4406, 4406, 1, 4408, 4409, 4410],
     [4408, 4411, 4408, 4408, 4408, 4408, 4408, 1],
     [4412, 4412, 4412, 1, 4408, 4408, 4408, 1],
     [4410, 4413, 4410, 4411, 4410, 4410, 4410, 4410],
     [4410, 4410, 1, 4414, 4414, 4414, 1, 4410],
     [4410, 4410, 1, 4415, 4416, 4417, 4407, 4418],
     [4419, 4419, 1, 4420, 4421, 4420, 4422, 4422],
     [4422, 1, 4420, 4420, 4422, 4422, 4422, 1],
     [4420, 4423, 4420, 4422, 4422, 4422, 1, 4422],
     [4424, 4424, 1, 4425, 4426, 4427, 4428, 4429]]"

definition smp_indicies_26 :: "int list list" where
  "smp_indicies_26 =
    [[4430, 4425, 4424, 4424, 4424, 1, 4425, 4425],
     [4424, 4424, 4424, 1, 4427, 4428, 4429, 4430],
     [4422, 4424, 4424, 1, 4431, 4433, 4432, 4434],
     [1, 4435, 4436, 1, 4437, 4438, 1, 4439],
     [1, 4440, 4441, 4442, 1, 4443, 4444, 4445],
     [4446, 4447, 4443, 4443, 4445, 4446, 4447, 4443],
     [4443, 4443, 4443, 4443, 1, 4448, 4449, 4450],
     [4451, 4452, 4453, 4448, 4448, 4448, 4448, 4448],
     [4448, 4448, 1, 4454, 4454, 4454, 1, 4448],
     [4448, 4448, 1, 4455, 4456, 4450, 4457, 4452],
     [4453, 4455, 4455, 4455, 4455, 4455, 4455, 4455],
     [1, 4458, 4459, 4460, 4461, 4462, 4458, 4458],
     [4458, 4458, 4458, 4458, 4458, 1, 4463, 4463],
     [4463, 1, 4458, 4458, 4458, 1, 4464, 4464],
     [4465, 4464, 4464, 4464, 4464, 4464, 4464, 4464],
     [4464, 1, 4464, 4464, 4465, 4466, 4464, 4464],
     [4464, 4464, 4464, 4464, 4464, 4464, 1, 4467],
     [4467, 4467, 1, 4464, 4464, 4464, 1, 4466],
     [4468, 4469, 4470, 4466, 4466, 4466, 4466, 4466],
     [4466, 4466, 4466, 1, 4471, 4471, 4471, 1],
     [4466, 4466, 4466, 1, 4455, 4456, 4455, 4455],
     [4455, 4455, 4455, 4455, 4455, 1, 4448, 4449],
     [4450, 4451, 4452, 4453, 4472, 4448, 4448, 4472],
     [4448, 4448, 4448, 4448, 4448, 1, 4448, 4449],
     [4473, 4474, 4475, 4476, 4448, 4448, 4448, 4448],
     [4448, 4448, 4448, 1, 4477, 4478, 4477, 4455],
     [4455, 4450, 4457, 4452, 4453, 4455, 4455, 4479],
     [4477, 4455, 4477, 4477, 4477, 4477, 1, 4480],
     [4481, 4480, 4458, 4458, 4460, 4461, 4462, 4458],
     [4458, 4479, 4480, 4458, 4480, 4480, 4480, 4480],
     [1, 4479, 4479, 4479, 4483, 249, 4484, 4479],
     [4479, 4479, 4482, 4482, 4479, 4479, 4482, 4479],
     [1, 4479, 4479, 4479, 4483, 249, 4484, 4479],
     [4479, 4479, 4479, 4479, 4479, 1, 4479, 4479],
     [4479, 4483, 249, 4484, 4479, 4479, 4479, 4480],
     [4480, 4479, 4479, 4480, 4479, 1, 4448, 4449],
     [4450, 4451, 4452, 4453, 4485, 4486, 4448, 4448],
     [4485, 4486, 4448, 4448, 4448, 4448, 4448, 1],
     [4448, 4449, 4487, 4488, 4489, 4490, 4448, 4448],
     [4448, 4448, 4448, 4448, 4448, 1, 4448, 4449],
     [4450, 4451, 4452, 4453, 4491, 4448, 4448, 4491],
     [4448, 4448, 4448, 4448, 4448, 1, 4448, 4449],
     [4450, 4451, 4452, 4453, 4492, 4448, 4448, 4492],
     [4448, 4448, 4448, 4448, 4448, 1, 4448, 4449],
     [4450, 4493, 4452, 4453, 4448, 4448, 4448, 4448],
     [4448, 4448, 4448, 1, 4494, 4495, 4494, 4455],
     [4455, 4450, 4457, 4452, 4453, 4455, 4455, 4496],
     [4494, 4455, 4494, 4494, 4494, 4494, 1, 4497],
     [4498, 4497, 4458, 4458, 4499, 4500, 4501, 4458],
     [4458, 4502, 4497, 4458, 4497, 4497, 4497, 4497],
     [1, 4502, 4502, 4502, 4504, 4505, 4506, 4502],
     [4502, 4502, 4503, 4503, 4502, 4502, 4503, 4502],
     [1, 4502, 4502, 4502, 4504, 4505, 4506, 4502],
     [4502, 4502, 4502, 4502, 4502, 1, 4502, 4502],
     [4502, 4504, 4505, 4506, 4502, 4502, 4502, 4497],
     [4497, 4502, 4502, 4497, 4502, 1, 4448, 4449],
     [4450, 4451, 4452, 4453, 4507, 4448, 4448, 4507],
     [4448, 4448, 4448, 4448, 4448, 1, 4448, 4449],
     [4450, 4451, 4452, 4453, 4508, 4448, 4448, 4508],
     [4448, 4448, 4448, 4448, 4448, 1, 4448, 4449],
     [4450, 4451, 4452, 4453, 4509, 4448, 4448, 4509],
     [4448, 4448, 4448, 4448, 4448, 1, 4448, 4449],
     [4450, 4451, 4452, 4453, 4510, 4448, 4448, 4510],
     [4448, 4448, 4448, 4448, 4448, 1, 4448, 4449],
     [4450, 4451, 4452, 4453, 4511, 4448, 4448, 4511],
     [4448, 4448, 4448, 4448, 4448, 1, 4448, 4449],
     [4450, 4451, 4452, 4453, 4512, 4448, 4448, 4512],
     [4448, 4448, 4448, 4448, 4448, 1, 4448, 4449],
     [4450, 4451, 4452, 4453, 4513, 4448, 4448, 4513],
     [4448, 4448, 4448, 4448, 4448, 1, 4448, 4449],
     [4450, 4451, 4452, 4453, 4514, 4448, 4448, 4514],
     [4448, 4448, 4448, 4448, 4448, 1, 4448, 4449],
     [4450, 4515, 4452, 4453, 4448, 4448, 4448, 4448],
     [4448, 4448, 4448, 1, 4516, 4517, 4516, 4455],
     [4455, 4450, 4457, 4452, 4453, 4518, 4519, 4520],
     [4521, 4455, 4455, 4522, 4518, 4519, 4520, 4521],
     [4516, 4455, 4516, 4516, 4516, 4516, 1, 4523],
     [4524, 4523, 4458, 4458, 4525, 4526, 4527, 4458],
     [4458, 4528, 4523, 4458, 4523, 4523, 4523, 4523],
     [1, 4528, 4528, 4528, 4530, 4531, 4532, 4528],
     [4528, 4528, 4529, 4529, 4528, 4528, 4529, 4528],
     [1, 4528, 4528, 4528, 4530, 4531, 4532, 4528],
     [4528, 4528, 4528, 4528, 4528, 1, 4528, 4528],
     [4528, 4530, 4531, 4532, 4528, 4528, 4528, 4523],
     [4523, 4528, 4528, 4523, 4528, 1, 4523, 4524],
     [4523, 4458, 4458, 4525, 4526, 4527, 4533, 4458],
     [4458, 4528, 4533, 4523, 4458, 4523, 4523, 4523],
     [4523, 1, 4523, 4524, 4523, 4458, 4458, 4525],
     [4526, 4527, 4534, 4458, 4458, 4528, 4534, 4523],
     [4458, 4523, 4523, 4523, 4523, 1, 4523, 4524],
     [4523, 4458, 4458, 4525, 4526, 4527, 4535, 4458],
     [4458, 4528, 4535, 4523, 4458, 4523, 4523, 4523],
     [4523, 1, 4523, 4524, 4523, 4458, 4458, 4536],
     [4537, 4538, 4458, 4458, 4528, 4523, 4458, 4523],
     [4523, 4523, 4523, 1, 4523, 4524, 4523, 4458],
     [4458, 4525, 4526, 4527, 4539, 4540, 4458, 4458],
     [4528, 4539, 4540, 4523, 4458, 4523, 4523, 4523],
     [4523, 1, 4523, 4524, 4523, 4458, 4458, 4525],
     [4526, 4527, 4541, 4458, 4458, 4528, 4541, 4523],
     [4458, 4523, 4523, 4523, 4523, 1, 4523, 4524],
     [4523, 4458, 4458, 4542, 4543, 4544, 4458, 4458],
     [4528, 4523, 4458, 4523, 4523, 4523, 4523, 1],
     [4523, 4524, 4523, 4458, 4458, 4525, 4526, 4527],
     [4545, 4458, 4458, 4528, 4545, 4523, 4458, 4523],
     [4523, 4523, 4523, 1, 4523, 4524, 4523, 4458],
     [4458, 4546, 4547, 4548, 4458, 4458, 4528, 4523],
     [4458, 4523, 4523, 4523, 4523, 1, 4523, 4524],
     [4523, 4458, 4458, 4525, 4526, 4527, 4549, 4458],
     [4458, 4528, 4549, 4523, 4458, 4523, 4523, 4523],
     [4523, 1, 4523, 4524, 4523, 4458, 4458, 4525],
     [4526, 4527, 4550, 4458, 4458, 4528, 4550, 4523],
     [4458, 4523, 4523, 4523, 4523, 1, 4523, 4524],
     [4523, 4458, 4458, 4551, 4552, 4553, 4458, 4458],
     [4528, 4523, 4458, 4523, 4523, 4523, 4523, 1],
     [4523, 4524, 4523, 4458, 4458, 4525, 4526, 4527],
     [4554, 4458, 4458, 4528, 4554, 4523, 4458, 4523],
     [4523, 4523, 4523, 1, 4523, 4524, 4523, 4458],
     [4458, 4555, 4556, 4557, 4558, 4458, 4458, 4528],
     [4558, 4523, 4458, 4523, 4523, 4523, 4523, 1],
     [4523, 4524, 4523, 4458, 4458, 4559, 4560, 4561],
     [4458, 4458, 4528, 4523, 4458, 4523, 4523, 4523],
     [4523, 1, 4440, 4441, 4442, 4439, 1, 4440],
     [4441, 4442, 4438, 1, 4440, 4441, 4442, 4562],
     [1, 4440, 4441, 4442, 4436, 1, 4563, 4440],
     [4441, 4442, 4562, 4436, 1, 4564, 4440, 4441],
     [4442, 4436, 4438, 1, 4565, 4440, 4441, 4442],
     [4438, 4439, 1, 4440, 4441, 4442, 4439, 1],
     [4566, 4567, 4568, 4569, 4424, 4424, 1, 4420],
     [4570, 4420, 4422, 4422, 4422, 1, 4571, 4572],
     [4573, 4574, 4424, 4424, 1, 4420, 4575, 4420],
     [4422, 4422, 4422, 1, 4576, 4577, 4578, 4579],
     [4424, 4424, 1, 4420, 4423, 4580, 4581, 4582],
     [4583, 4420, 4422, 4422, 4422, 1, 4420, 4423],
     [4580, 4581, 4582, 4583, 4420, 4579, 4422, 4422],
     [1, 4420, 4423, 4580, 4581, 4582, 4583, 4420],
     [4576, 4422, 4422, 1, 4420, 4423, 4584, 4580],
     [4581, 4582, 4583, 4420, 4579, 4576, 4422, 4422],
     [1, 4420, 4423, 4580, 4581, 4582, 4583, 4420],
     [4576, 4422, 4422, 4422, 1, 4420, 4575, 4420],
     [4574, 4422, 4422, 1, 4420, 4575, 4420, 4571],
     [4422, 4422, 1, 4420, 4575, 4585, 4420, 4574],
     [4571, 4422, 4422, 1, 4420, 4575, 4420, 4571],
     [4422, 4422, 4422, 1, 4420, 4570, 4420, 4569],
     [4422, 4422, 1, 4420, 4570, 4420, 4566, 4422],
     [4422, 1, 4420, 4570, 4586, 4420, 4569, 4566],
     [4422, 4422, 1, 4420, 4570, 4420, 4566, 4422],
     [4422, 4422, 1, 4420, 4421, 4420, 4587, 4422],
     [4422, 1, 4420, 4421, 4420, 4588, 4422, 4422],
     [1, 4420, 4421, 4589, 4420, 4587, 4588, 4422],
     [4422, 1, 4420, 4421, 4420, 4588, 4422, 4422]]"

definition smp_indicies_27 :: "int list list" where
  "smp_indicies_27 =
    [[4422, 1, 4591, 4590, 4590, 4590, 1, 4593],
     [4592, 4592, 4592, 1, 4593, 4594, 4594, 4594],
     [1, 4593, 4595, 4595, 4595, 1, 4593, 1],
     [4597, 4596, 4596, 4596, 1, 4599, 4598, 4598],
     [4598, 1, 4599, 4600, 4600, 4600, 1, 4599],
     [4601, 4601, 4601, 1, 4599, 1, 4603, 4602],
     [4602, 4602, 1, 4605, 4604, 4604, 4604, 1],
     [4605, 4606, 4606, 4606, 1, 4605, 4607, 4607],
     [4607, 1, 4605, 1, 4609, 4608, 4608, 4608],
     [1, 4611, 4610, 4610, 4610, 1, 4611, 4612],
     [4612, 4612, 1, 4611, 4613, 4613, 4613, 1],
     [4611, 1, 4615, 4614, 4614, 4614, 1, 4617],
     [4616, 4616, 4616, 1, 4617, 4618, 4618, 4618],
     [1, 4617, 4619, 4619, 4619, 1, 4617, 1],
     [4621, 4620, 4620, 4620, 1, 4623, 4622, 4622],
     [4622, 1, 4623, 4624, 4624, 4624, 1, 4623],
     [4625, 4625, 4625, 1, 4623, 1, 4626, 4627],
     [4628, 4630, 4629, 4631, 4631, 1, 4632, 4634],
     [4633, 4633, 4633, 1, 4635, 4636, 4637, 4638],
     [1, 4639, 1, 4640, 4641, 4642, 4643, 1],
     [4644, 1, 4645, 4646, 4647, 4648, 1, 4649],
     [1, 4650, 4651, 4652, 4653, 1, 4649, 4648],
     [1, 4649, 4645, 1, 4654, 4649, 4648, 4645],
     [1, 4649, 4645, 1, 4644, 4643, 1, 4644],
     [4640, 1, 4644, 4655, 4643, 4640, 1, 4644],
     [4640, 1, 4639, 4638, 1, 4639, 4635, 1],
     [4639, 4656, 4638, 4635, 1, 4639, 4635, 1],
     [4634, 4657, 4657, 4657, 1, 4634, 4658, 4658],
     [4658, 1, 4634, 1, 4645, 4659, 4659, 4659],
     [1, 4649, 4660, 4660, 4660, 1, 4649, 4661],
     [4661, 4661, 1, 4649, 4645, 4645, 4645, 1],
     [4632, 4634, 4662, 4633, 4633, 1, 4632, 4634],
     [4663, 4657, 4657, 1, 4632, 4634, 4658, 4658],
     [4658, 1, 4632, 4664, 4634, 4662, 4665, 4633],
     [4633, 1, 4632, 4634, 4663, 4657, 4657, 4657],
     [1, 4632, 4634, 4657, 4657, 4657, 1, 4632],
     [4634, 4665, 4633, 4633, 1, 4649, 4659, 4659],
     [4659, 1, 4634, 4633, 4633, 4633, 1, 4666],
     [4667, 4668, 4649, 4669, 4670, 4670, 1, 4632],
     [4672, 4649, 4671, 4671, 4671, 1, 4672, 4649],
     [4673, 4673, 4673, 1, 4672, 4649, 4674, 4674],
     [4674, 1, 4672, 4649, 1, 4659, 4659, 4659],
     [1, 4632, 4672, 4649, 4675, 4671, 4671, 1],
     [4632, 4672, 4649, 4676, 4673, 4673, 1, 4632],
     [4672, 4649, 4674, 4674, 4674, 1, 4632, 4677],
     [4672, 4649, 4675, 4678, 4671, 4671, 1, 4632],
     [4672, 4649, 4676, 4673, 4673, 4673, 1, 4632],
     [4672, 4649, 4673, 4673, 4673, 1, 4632, 4672],
     [4649, 4678, 4671, 4671, 1, 4672, 4649, 4671],
     [4671, 4671, 1, 4679, 4680, 4681, 4649, 4682],
     [4683, 4683, 1, 4632, 4685, 4649, 4684, 4684],
     [4684, 1, 4685, 4649, 4686, 4686, 4686, 1],
     [4685, 4649, 4687, 4687, 4687, 1, 4685, 4649],
     [1, 4666, 4667, 4668, 4669, 4670, 4670, 1],
     [4632, 4685, 4649, 4688, 4684, 4684, 1, 4632],
     [4685, 4649, 4689, 4686, 4686, 1, 4632, 4685],
     [4649, 4687, 4687, 4687, 1, 4632, 4690, 4685],
     [4649, 4688, 4691, 4684, 4684, 1, 4632, 4685],
     [4649, 4689, 4686, 4686, 4686, 1, 4632, 4685],
     [4649, 4686, 4686, 4686, 1, 4632, 4685, 4649],
     [4691, 4684, 4684, 1, 4685, 4649, 4684, 4684],
     [4684, 1, 4692, 4693, 4694, 4649, 4695, 4696],
     [4696, 1, 4632, 4698, 4649, 4697, 4697, 4697],
     [1, 4698, 4649, 4699, 4699, 4699, 1, 4698],
     [4649, 4700, 4700, 4700, 1, 4698, 4649, 1],
     [4679, 4680, 4681, 4682, 4683, 4683, 1, 4632],
     [4698, 4649, 4701, 4697, 4697, 1, 4632, 4698],
     [4649, 4702, 4699, 4699, 1, 4632, 4698, 4649],
     [4700, 4700, 4700, 1, 4632, 4703, 4698, 4649],
     [4701, 4704, 4697, 4697, 1, 4632, 4698, 4649],
     [4702, 4699, 4699, 4699, 1, 4632, 4698, 4649],
     [4699, 4699, 4699, 1, 4632, 4698, 4649, 4704],
     [4697, 4697, 1, 4698, 4649, 4697, 4697, 4697],
     [1, 4705, 4706, 4707, 4649, 4708, 4709, 4709],
     [1, 4632, 4711, 4649, 4710, 4710, 4710, 1],
     [4711, 4649, 4712, 4712, 4712, 1, 4711, 4649],
     [4713, 4713, 4713, 1, 4711, 4649, 1, 4692],
     [4693, 4694, 4695, 4696, 4696, 1, 4632, 4711],
     [4649, 4714, 4710, 4710, 1, 4632, 4711, 4649],
     [4715, 4712, 4712, 1, 4632, 4711, 4649, 4713],
     [4713, 4713, 1, 4632, 4716, 4711, 4649, 4714],
     [4717, 4710, 4710, 1, 4632, 4711, 4649, 4715],
     [4712, 4712, 4712, 1, 4632, 4711, 4649, 4712],
     [4712, 4712, 1, 4632, 4711, 4649, 4717, 4710],
     [4710, 1, 4711, 4649, 4710, 4710, 4710, 1],
     [4718, 4719, 4720, 4649, 4721, 4722, 4722, 1],
     [4632, 4724, 4649, 4723, 4723, 4723, 1, 4724],
     [4649, 4725, 4725, 4725, 1, 4724, 4649, 4726],
     [4726, 4726, 1, 4724, 4649, 1, 4705, 4706],
     [4707, 4708, 4709, 4709, 1, 4632, 4724, 4649],
     [4727, 4723, 4723, 1, 4632, 4724, 4649, 4728],
     [4725, 4725, 1, 4632, 4724, 4649, 4726, 4726],
     [4726, 1, 4632, 4729, 4724, 4649, 4727, 4730],
     [4723, 4723, 1, 4632, 4724, 4649, 4728, 4725],
     [4725, 4725, 1, 4632, 4724, 4649, 4725, 4725],
     [4725, 1, 4632, 4724, 4649, 4730, 4723, 4723],
     [1, 4724, 4649, 4723, 4723, 4723, 1, 4731],
     [1, 4732, 4733, 4734, 4649, 4735, 4736, 4736],
     [1, 4632, 4738, 4649, 4737, 4737, 4737, 1],
     [4738, 4649, 4739, 4739, 4739, 1, 4738, 4649],
     [4740, 4740, 4740, 1, 4738, 4649, 1, 4718],
     [4719, 4720, 4721, 4722, 4722, 1, 4632, 4738],
     [4649, 4741, 4737, 4737, 1, 4632, 4738, 4649],
     [4742, 4739, 4739, 1, 4632, 4738, 4649, 4740],
     [4740, 4740, 1, 4632, 4743, 4738, 4649, 4741],
     [4744, 4737, 4737, 1, 4632, 4738, 4649, 4742],
     [4739, 4739, 4739, 1, 4632, 4738, 4649, 4739],
     [4739, 4739, 1, 4632, 4738, 4649, 4744, 4737],
     [4737, 1, 4738, 4649, 4737, 4737, 4737, 1],
     [4408, 4409, 4745, 4746, 4410, 4408, 4408, 4408],
     [4411, 4745, 4408, 4408, 4747, 4747, 4747, 1],
     [4408, 4409, 4745, 4410, 4408, 4408, 4408, 4411],
     [4745, 4408, 4408, 4747, 4747, 4747, 1, 4408],
     [4409, 4745, 4748, 4410, 4408, 4408, 4408, 4411],
     [4745, 4408, 4408, 4747, 4747, 4747, 1, 4408],
     [4409, 4410, 4408, 4408, 4408, 4411, 4408, 4408],
     [4408, 4747, 4749, 4749, 1, 4408, 4409, 4750],
     [4751, 4752, 4753, 4408, 4429, 4754, 4411, 4750],
     [4408, 4408, 4749, 4749, 4749, 1, 4408, 4409],
     [4750, 4410, 4408, 4408, 4408, 4411, 4750, 4408],
     [4408, 4749, 4749, 4749, 1, 4408, 4409, 4752],
     [4753, 4408, 4429, 4754, 4411, 4408, 4408, 4408],
     [4747, 4749, 4749, 1, 4410, 4413, 4755, 4757],
     [4410, 4411, 4410, 4410, 4410, 4756, 4758, 4410],
     [4410, 1, 4410, 4413, 4759, 4410, 4411, 4410],
     [4410, 4410, 4760, 4410, 4410, 1, 4410, 4413],
     [4761, 4410, 4411, 4410, 4410, 4410, 4762, 4410],
     [4410, 1, 4410, 4413, 4410, 4410, 4411, 4410],
     [4410, 4410, 4763, 4410, 4410, 1, 4410, 4413],
     [4440, 4441, 4442, 4411, 4410, 4410, 4410, 4410],
     [4410, 4410, 1, 4410, 4413, 4440, 4441, 4442],
     [4411, 4410, 4410, 4410, 4763, 4410, 4410, 1],
     [4410, 4413, 4440, 4441, 4442, 4411, 4410, 4410],
     [4410, 4762, 4410, 4410, 1, 4410, 4413, 4440],
     [4441, 4442, 4411, 4410, 4410, 4410, 4764, 4410],
     [4410, 1, 4410, 4413, 4440, 4441, 4442, 4411],
     [4410, 4410, 4410, 4760, 4410, 4410, 1, 4410],
     [4413, 4765, 4440, 4441, 4442, 4411, 4410, 4410],
     [4410, 4764, 4760, 4410, 4410, 1, 4410, 4413],
     [4766, 4440, 4441, 4442, 4411, 4410, 4410, 4410],
     [4760, 4762, 4410, 4410, 1, 4410, 4413, 4767],
     [4440, 4441, 4442, 4411, 4410, 4410, 4410, 4762],
     [4763, 4410, 4410, 1, 4410, 4413, 4440, 4441],
     [4442, 4411, 4410, 4410, 4410, 4763, 4410, 4410],
     [4410, 1, 4768, 4408, 4769, 4408, 4770, 4408],
     [4408, 4408, 4411, 4771, 4772, 4773, 4443, 4443],
     [4768, 4771, 4772, 4773, 4768, 4768, 4768, 4768],
     [1, 4774, 4408, 4775, 4408, 4776, 4777, 4778],
     [4452, 4779, 4411, 4448, 4448, 4774, 4774, 4774],
     [4774, 4774, 1, 4780, 4780, 4780, 1, 4774]]"

definition smp_indicies_28 :: "int list list" where
  "smp_indicies_28 =
    [[4774, 4774, 1, 4776, 4781, 4410, 4448, 4448],
     [4450, 4782, 4452, 4453, 4411, 4448, 4448, 4776],
     [4776, 4776, 4776, 4776, 1, 4783, 4783, 4783],
     [1, 4776, 4776, 4776, 1, 4784, 4785, 4410],
     [4455, 4455, 4450, 4786, 4452, 4453, 4411, 4455],
     [4455, 4784, 4784, 4784, 4784, 4784, 1, 4787],
     [4788, 4410, 4458, 4458, 4460, 4410, 4461, 4462],
     [4411, 4458, 4458, 4787, 4787, 4787, 4787, 4787],
     [1, 4789, 4789, 4789, 1, 4787, 4787, 4787],
     [1, 4784, 4785, 4410, 4455, 4455, 4410, 4411],
     [4455, 4455, 4784, 4784, 4784, 4784, 4784, 1],
     [4790, 4408, 4791, 4408, 4784, 4777, 4792, 4452],
     [4779, 4411, 4455, 4455, 4790, 4790, 4790, 4790],
     [4790, 1, 4793, 4408, 4794, 4408, 4787, 4795],
     [4408, 4461, 4796, 4411, 4458, 4458, 4793, 4793],
     [4793, 4793, 4793, 1, 4797, 4797, 4797, 1],
     [4793, 4793, 4793, 1, 4798, 4798, 4799, 4408],
     [4800, 4408, 4408, 4411, 4464, 4464, 4798, 4798],
     [4408, 4798, 4798, 4798, 1, 4798, 4798, 4799],
     [4408, 4800, 4408, 4801, 4411, 4464, 4464, 4798],
     [4798, 4408, 4798, 4798, 4798, 1, 4802, 4802],
     [4802, 1, 4798, 4798, 4798, 1, 4800, 4803],
     [4410, 4410, 4464, 4464, 4804, 4464, 4411, 4464],
     [4464, 4800, 4800, 4800, 4800, 4800, 1, 4805],
     [4805, 4805, 1, 4800, 4800, 4800, 1, 4804],
     [4806, 4807, 4410, 4466, 4466, 4410, 4470, 4466],
     [4411, 4466, 4466, 4804, 4804, 4804, 4804, 4804],
     [1, 4808, 4808, 4808, 1, 4804, 4804, 4804],
     [1, 4800, 4803, 4410, 4410, 4464, 4464, 4410],
     [4464, 4411, 4464, 4464, 4800, 4800, 4800, 4800],
     [4800, 1, 4801, 4408, 4809, 4810, 4408, 4804],
     [4408, 4408, 4470, 4411, 4466, 4466, 4801, 4801],
     [4801, 4801, 4801, 1, 4811, 4811, 4811, 1],
     [4801, 4801, 4801, 1, 4790, 4408, 4791, 4408],
     [4784, 4408, 4408, 4408, 4411, 4455, 4455, 4790],
     [4790, 4790, 4790, 4790, 1, 4774, 4408, 4775],
     [4408, 4776, 4777, 4778, 4452, 4779, 4411, 4812],
     [4448, 4448, 4774, 4812, 4774, 4774, 4774, 4774],
     [1, 4774, 4408, 4775, 4408, 4776, 4813, 4814],
     [4475, 4815, 4411, 4448, 4448, 4774, 4774, 4774],
     [4774, 4774, 1, 4816, 4408, 4817, 4816, 4408],
     [4790, 4784, 4777, 4792, 4452, 4779, 4411, 4455],
     [4455, 4479, 4816, 4790, 4816, 4816, 4816, 1],
     [4818, 4408, 4819, 4818, 4408, 4793, 4787, 4795],
     [4408, 4461, 4796, 4411, 4458, 4458, 4479, 4818],
     [4793, 4818, 4818, 4818, 1, 4479, 4479, 4479],
     [4483, 249, 4484, 4479, 4479, 4479, 4820, 4820],
     [4479, 4479, 4820, 4479, 1, 4479, 4479, 4479],
     [4483, 249, 4484, 4479, 4479, 4479, 4818, 4818],
     [4479, 4479, 4818, 4479, 1, 4774, 4408, 4775],
     [4408, 4776, 4777, 4778, 4452, 4779, 4411, 4821],
     [4822, 4448, 4448, 4774, 4821, 4822, 4774, 4774],
     [4774, 4774, 1, 4774, 4408, 4775, 4408, 4776],
     [4823, 4824, 4489, 4825, 4411, 4448, 4448, 4774],
     [4774, 4774, 4774, 4774, 1, 4774, 4408, 4775],
     [4408, 4776, 4777, 4778, 4452, 4779, 4411, 4826],
     [4448, 4448, 4774, 4826, 4774, 4774, 4774, 4774],
     [1, 4774, 4408, 4775, 4408, 4776, 4777, 4778],
     [4452, 4779, 4411, 4827, 4448, 4448, 4774, 4827],
     [4774, 4774, 4774, 4774, 1, 4774, 4408, 4775],
     [4408, 4776, 4777, 4828, 4452, 4779, 4411, 4448],
     [4448, 4774, 4774, 4774, 4774, 4774, 1, 4829],
     [4408, 4830, 4829, 4408, 4790, 4784, 4777, 4792],
     [4452, 4779, 4411, 4455, 4455, 4496, 4829, 4790],
     [4829, 4829, 4829, 1, 4831, 4408, 4832, 4831],
     [4408, 4793, 4787, 4833, 4408, 4500, 4834, 4411],
     [4458, 4458, 4502, 4831, 4793, 4831, 4831, 4831],
     [1, 4502, 4502, 4502, 4504, 4505, 4506, 4502],
     [4502, 4502, 4835, 4835, 4502, 4502, 4835, 4502],
     [1, 4502, 4502, 4502, 4504, 4505, 4506, 4502],
     [4502, 4502, 4831, 4831, 4502, 4502, 4831, 4502],
     [1, 4774, 4408, 4775, 4408, 4776, 4777, 4778],
     [4452, 4779, 4411, 4836, 4448, 4448, 4774, 4836],
     [4774, 4774, 4774, 4774, 1, 4774, 4408, 4775],
     [4408, 4776, 4777, 4778, 4452, 4779, 4411, 4837],
     [4448, 4448, 4774, 4837, 4774, 4774, 4774, 4774],
     [1, 4774, 4408, 4775, 4408, 4776, 4777, 4778],
     [4452, 4779, 4411, 4838, 4448, 4448, 4774, 4838],
     [4774, 4774, 4774, 4774, 1, 4774, 4408, 4775],
     [4408, 4776, 4777, 4778, 4452, 4779, 4411, 4839],
     [4448, 4448, 4774, 4839, 4774, 4774, 4774, 4774],
     [1, 4774, 4408, 4775, 4408, 4776, 4777, 4778],
     [4452, 4779, 4411, 4840, 4448, 4448, 4774, 4840],
     [4774, 4774, 4774, 4774, 1, 4774, 4408, 4775],
     [4408, 4776, 4777, 4778, 4452, 4779, 4411, 4841],
     [4448, 4448, 4774, 4841, 4774, 4774, 4774, 4774],
     [1, 4774, 4408, 4775, 4408, 4776, 4777, 4778],
     [4452, 4779, 4411, 4842, 4448, 4448, 4774, 4842],
     [4774, 4774, 4774, 4774, 1, 4774, 4408, 4775],
     [4408, 4776, 4777, 4778, 4452, 4779, 4411, 4843],
     [4448, 4448, 4774, 4843, 4774, 4774, 4774, 4774],
     [1, 4774, 4408, 4775, 4408, 4776, 4777, 4844],
     [4452, 4779, 4411, 4448, 4448, 4774, 4774, 4774],
     [4774, 4774, 1, 4845, 4408, 4846, 4845, 4408],
     [4790, 4784, 4777, 4792, 4452, 4779, 4411, 4847],
     [4848, 4849, 4850, 4455, 4455, 4522, 4847, 4848],
     [4849, 4850, 4845, 4790, 4845, 4845, 4845, 1],
     [4851, 4408, 4852, 4851, 4408, 4793, 4787, 4853],
     [4408, 4526, 4854, 4411, 4458, 4458, 4528, 4851],
     [4793, 4851, 4851, 4851, 1, 4528, 4528, 4528],
     [4530, 4531, 4532, 4528, 4528, 4528, 4855, 4855],
     [4528, 4528, 4855, 4528, 1, 4528, 4528, 4528],
     [4530, 4531, 4532, 4528, 4528, 4528, 4851, 4851],
     [4528, 4528, 4851, 4528, 1, 4851, 4408, 4852],
     [4851, 4408, 4793, 4787, 4853, 4408, 4526, 4854],
     [4411, 4856, 4458, 4458, 4528, 4856, 4851, 4793],
     [4851, 4851, 4851, 1, 4851, 4408, 4852, 4851],
     [4408, 4793, 4787, 4853, 4408, 4526, 4854, 4411],
     [4857, 4458, 4458, 4528, 4857, 4851, 4793, 4851],
     [4851, 4851, 1, 4851, 4408, 4852, 4851, 4408],
     [4793, 4787, 4853, 4408, 4526, 4854, 4411, 4858],
     [4458, 4458, 4528, 4858, 4851, 4793, 4851, 4851],
     [4851, 1, 4851, 4408, 4852, 4851, 4408, 4793],
     [4787, 4859, 4408, 4537, 4860, 4411, 4458, 4458],
     [4528, 4851, 4793, 4851, 4851, 4851, 1, 4851],
     [4408, 4852, 4851, 4408, 4793, 4787, 4853, 4408],
     [4526, 4854, 4411, 4861, 4862, 4458, 4458, 4528],
     [4861, 4862, 4851, 4793, 4851, 4851, 4851, 1],
     [4851, 4408, 4852, 4851, 4408, 4793, 4787, 4853],
     [4408, 4526, 4854, 4411, 4863, 4458, 4458, 4528],
     [4863, 4851, 4793, 4851, 4851, 4851, 1, 4851],
     [4408, 4852, 4851, 4408, 4793, 4787, 4864, 4408],
     [4543, 4865, 4411, 4458, 4458, 4528, 4851, 4793],
     [4851, 4851, 4851, 1, 4851, 4408, 4852, 4851],
     [4408, 4793, 4787, 4853, 4408, 4526, 4854, 4411],
     [4866, 4458, 4458, 4528, 4866, 4851, 4793, 4851],
     [4851, 4851, 1, 4851, 4408, 4852, 4851, 4408],
     [4793, 4787, 4867, 4408, 4547, 4868, 4411, 4458],
     [4458, 4528, 4851, 4793, 4851, 4851, 4851, 1],
     [4851, 4408, 4852, 4851, 4408, 4793, 4787, 4853],
     [4408, 4526, 4854, 4411, 4869, 4458, 4458, 4528],
     [4869, 4851, 4793, 4851, 4851, 4851, 1, 4851],
     [4408, 4852, 4851, 4408, 4793, 4787, 4853, 4408],
     [4526, 4854, 4411, 4870, 4458, 4458, 4528, 4870],
     [4851, 4793, 4851, 4851, 4851, 1, 4851, 4408],
     [4852, 4851, 4408, 4793, 4787, 4871, 4408, 4552],
     [4872, 4411, 4458, 4458, 4528, 4851, 4793, 4851],
     [4851, 4851, 1, 4851, 4408, 4852, 4851, 4408],
     [4793, 4787, 4853, 4408, 4526, 4854, 4411, 4873],
     [4458, 4458, 4528, 4873, 4851, 4793, 4851, 4851],
     [4851, 1, 4851, 4408, 4852, 4851, 4408, 4793],
     [4787, 4874, 4408, 4556, 4875, 4411, 4876, 4458],
     [4458, 4528, 4876, 4851, 4793, 4851, 4851, 4851],
     [1, 4851, 4408, 4852, 4851, 4408, 4793, 4787],
     [4877, 4408, 4560, 4878, 4411, 4458, 4458, 4528],
     [4851, 4793, 4851, 4851, 4851, 1, 4408, 4409],
     [4879, 4880, 4881, 4410, 4408, 4408, 4408, 4411],
     [4408, 4408, 4408, 4882, 4749, 4749, 1, 4408],
     [4409, 4745, 4883, 4410, 4408, 4408, 4408, 4411],
     [4745, 4408, 4408, 4747, 4747, 4747, 1, 4408]]"

definition smp_indicies_29 :: "int list list" where
  "smp_indicies_29 =
    [[4409, 4884, 4885, 4886, 4410, 4408, 4408, 4408],
     [4411, 4408, 4408, 4408, 4887, 4749, 4749, 1],
     [4408, 4409, 4745, 4888, 4410, 4408, 4408, 4408],
     [4411, 4745, 4408, 4408, 4747, 4747, 4747, 1],
     [4408, 4409, 4889, 4890, 4891, 4410, 4408, 4408],
     [4408, 4411, 4408, 4408, 4408, 4892, 4749, 4749],
     [1, 4408, 4409, 4745, 4748, 4893, 4894, 4408],
     [4582, 4895, 4411, 4745, 4408, 4408, 4747, 4747],
     [4747, 1, 4408, 4409, 4745, 4748, 4893, 4894],
     [4408, 4582, 4895, 4411, 4745, 4408, 4408, 4892],
     [4747, 4747, 1, 4408, 4409, 4745, 4748, 4893],
     [4894, 4408, 4582, 4895, 4411, 4745, 4408, 4408],
     [4889, 4747, 4747, 1, 4408, 4409, 4745, 4748],
     [4896, 4893, 4894, 4408, 4582, 4895, 4411, 4745],
     [4408, 4408, 4892, 4889, 4747, 4747, 1, 4408],
     [4409, 4745, 4748, 4893, 4894, 4408, 4582, 4895],
     [4411, 4745, 4408, 4408, 4889, 4747, 4747, 4747],
     [1, 4408, 4409, 4745, 4888, 4410, 4408, 4408],
     [4408, 4411, 4745, 4408, 4408, 4887, 4747, 4747],
     [1, 4408, 4409, 4745, 4888, 4410, 4408, 4408],
     [4408, 4411, 4745, 4408, 4408, 4884, 4747, 4747],
     [1, 4408, 4409, 4745, 4888, 4897, 4410, 4408],
     [4408, 4408, 4411, 4745, 4408, 4408, 4887, 4884],
     [4747, 4747, 1, 4408, 4409, 4745, 4888, 4410],
     [4408, 4408, 4408, 4411, 4745, 4408, 4408, 4884],
     [4747, 4747, 4747, 1, 4408, 4409, 4745, 4883],
     [4410, 4408, 4408, 4408, 4411, 4745, 4408, 4408],
     [4882, 4747, 4747, 1, 4408, 4409, 4745, 4883],
     [4410, 4408, 4408, 4408, 4411, 4745, 4408, 4408],
     [4879, 4747, 4747, 1, 4408, 4409, 4745, 4883],
     [4898, 4410, 4408, 4408, 4408, 4411, 4745, 4408],
     [4408, 4882, 4879, 4747, 4747, 1, 4408, 4409],
     [4745, 4883, 4410, 4408, 4408, 4408, 4411, 4745],
     [4408, 4408, 4879, 4747, 4747, 4747, 1, 4408],
     [4409, 4745, 4746, 4410, 4408, 4408, 4408, 4411],
     [4745, 4408, 4408, 4899, 4747, 4747, 1, 4408],
     [4409, 4745, 4746, 4410, 4408, 4408, 4408, 4411],
     [4745, 4408, 4408, 4900, 4747, 4747, 1, 4408],
     [4409, 4745, 4746, 4901, 4410, 4408, 4408, 4408],
     [4411, 4745, 4408, 4408, 4899, 4900, 4747, 4747],
     [1, 4408, 4409, 4745, 4746, 4410, 4408, 4408],
     [4408, 4411, 4745, 4408, 4408, 4900, 4747, 4747],
     [4747, 1, 242, 4902, 242, 242, 242, 242],
     [1, 242, 243, 4903, 4903, 242, 242, 242],
     [242, 1, 242, 243, 4904, 4904, 242, 242],
     [242, 242, 1, 242, 4905, 242, 242, 242],
     [242, 1, 4906, 4906, 4908, 4907, 4907, 4906],
     [4906, 4906, 1, 4909, 4910, 4911, 4909, 4909],
     [4909, 4909, 4909, 1, 4912, 4913, 4913, 4912],
     [4912, 4912, 1, 4914, 4915, 4916, 4452, 4914],
     [4914, 4914, 1, 4917, 4918, 4917, 4917, 4917],
     [4917, 4917, 4917, 4917, 1, 4919, 4920, 4921],
     [4461, 4919, 4919, 4919, 4919, 4919, 4919, 4919],
     [1, 4922, 4922, 4922, 1, 4919, 4919, 4919],
     [1, 4914, 4915, 4916, 4452, 4923, 4923, 4914],
     [4914, 4914, 1, 4914, 4915, 4916, 4452, 4924],
     [4924, 4914, 4914, 4914, 1, 4914, 4915, 4916],
     [4452, 4925, 4925, 4914, 4914, 4914, 1, 4914],
     [4915, 4916, 4452, 4926, 4926, 4914, 4914, 4914],
     [1, 4927, 4915, 4916, 4452, 4914, 4914, 4914],
     [1, 4914, 4915, 4916, 4452, 4928, 4928, 4914],
     [4914, 4914, 1, 4914, 4915, 4916, 4452, 4929],
     [4929, 4914, 4914, 4914, 1, 4914, 4915, 4916],
     [4452, 4930, 4930, 4914, 4914, 4914, 1, 4914],
     [4915, 4916, 4452, 4931, 4931, 4914, 4914, 4914],
     [1, 4914, 4915, 4916, 4452, 4932, 4932, 4914],
     [4914, 4914, 1, 4914, 4915, 4916, 4452, 4933],
     [4933, 4914, 4914, 4914, 1, 4914, 4915, 4916],
     [4452, 4934, 4934, 4914, 4914, 4914, 1, 4914],
     [4915, 4935, 4452, 4914, 4914, 4914, 1, 4917],
     [4918, 4936, 4917, 4917, 4917, 4917, 4917, 4917],
     [4917, 4937, 4938, 4938, 1, 4919, 4920, 4919],
     [4919, 4921, 4461, 4919, 4919, 4919, 4919, 4939],
     [4919, 4939, 4940, 4919, 4919, 1, 4919, 4920],
     [4919, 4919, 4941, 4942, 4919, 4919, 4919, 4919],
     [4940, 4919, 4940, 4919, 4919, 1, 4919, 4920],
     [4943, 4944, 4919, 4919, 4921, 4461, 4919, 4919],
     [4943, 4919, 4919, 4945, 4945, 4945, 1, 4919],
     [4920, 4943, 4919, 4921, 4461, 4919, 4919, 4943],
     [4919, 4919, 4919, 4945, 4945, 4945, 1, 4919],
     [4920, 4919, 4921, 4461, 4919, 4919, 4919, 4919],
     [4919, 4919, 4945, 4946, 4946, 1, 4919, 4920],
     [4947, 4948, 4919, 4919, 4941, 4942, 4919, 4919],
     [4947, 4919, 4919, 4946, 4946, 4946, 1, 4919],
     [4920, 4947, 4919, 4921, 4461, 4919, 4919, 4947],
     [4919, 4919, 4919, 4946, 4946, 4946, 1, 4919],
     [4920, 4919, 4941, 4942, 4919, 4919, 4919, 4919],
     [4919, 4919, 4945, 4946, 4946, 1, 4909, 4909],
     [4949, 4949, 4909, 4909, 4909, 1, 4950, 4950],
     [4951, 1, 4910, 4911, 4951, 4951, 4951, 1],
     [4952, 4953, 4952, 4954, 4954, 4954, 4955, 4954],
     [4954, 4954, 4954, 4954, 4954, 1, 4956, 4957],
     [4956, 4954, 4954, 4954, 238, 4954, 4954, 4954],
     [4954, 4954, 4954, 1, 4958, 1, 4959, 4959],
     [1, 4959, 4959, 4954, 4954, 4954, 238, 4954],
     [4954, 4954, 4954, 4954, 4954, 1, 4965, 4966],
     [4967, 4968, 4960, 4961, 4962, 4963, 4964, 4965],
     [1, 4965, 1, 4960, 1, 4961, 1, 4962],
     [1, 4963, 1, 4969, 1, 4965, 4965, 1],
     [4970, 4971, 4970, 4955, 1, 4972, 4973, 4972],
     [238, 1, 4965, 4965, 4965, 1, 4952, 4953],
     [4952, 4954, 4954, 4954, 4954, 4974, 4975, 4955],
     [4954, 4974, 4974, 4974, 4954, 4974, 1, 4976],
     [4977, 4976, 4978, 4979, 4980, 4981, 4982, 4983],
     [4978, 4982, 4984, 4978, 4978, 4978, 4978, 4978],
     [4978, 1, 4976, 4977, 4976, 4978, 4979, 4980],
     [4985, 4983, 4978, 4986, 4978, 4978, 4978, 4978],
     [4978, 4978, 1, 4979, 4987, 4988, 4979, 4989],
     [4979, 4979, 4979, 4979, 4979, 4979, 1, 4990],
     [4990, 4990, 1, 4979, 4979, 4979, 1, 4988],
     [4991, 4988, 4989, 4988, 4988, 4988, 4988, 4988],
     [4988, 4988, 1, 4992, 4992, 4992, 1, 4988],
     [4988, 4988, 1, 4993, 4994, 4995, 4984, 4996],
     [4997, 4997, 1, 4998, 4999, 4998, 5000, 5000],
     [5000, 1, 4998, 4998, 5000, 5000, 5000, 1],
     [4998, 5001, 4998, 5000, 5000, 5000, 1, 5000],
     [4997, 4997, 1, 4976, 4977, 4976, 5002, 5003],
     [5004, 4983, 5002, 4997, 4997, 4997, 1, 5002],
     [5002, 4997, 4997, 4997, 1, 4976, 4977, 4976],
     [5004, 4983, 5000, 4997, 4997, 1, 5005, 5007],
     [5006, 5008, 1, 5009, 5010, 1, 5011, 5012],
     [1, 5013, 1, 4976, 4977, 4976, 4983, 1],
     [4976, 4977, 4976, 4983, 5013, 1, 4976, 4977],
     [4976, 4983, 5012, 1, 4976, 4977, 4976, 4983],
     [5008, 1, 4976, 4977, 4976, 4983, 5010, 1],
     [4976, 4977, 4976, 5014, 4983, 5008, 5010, 1],
     [4976, 4977, 4976, 5015, 4983, 5010, 5012, 1],
     [4976, 4977, 4976, 5016, 4983, 5012, 5013, 1],
     [4976, 4977, 4976, 4983, 5013, 1, 5017, 5018],
     [5019, 5020, 4997, 4997, 1, 4998, 5021, 4998],
     [5000, 5000, 5000, 1, 5022, 5023, 5024, 5025],
     [4997, 4997, 1, 4998, 5026, 4998, 5000, 5000],
     [5000, 1, 5027, 5028, 5029, 5030, 4997, 4997],
     [1, 4976, 4977, 4976, 4998, 5001, 5004, 4983],
     [4998, 5000, 5000, 5000, 1, 4976, 4977, 4976],
     [4998, 5001, 5004, 4983, 4998, 5030, 5000, 5000],
     [1, 4976, 4977, 4976, 4998, 5001, 5004, 4983],
     [4998, 5027, 5000, 5000, 1, 4976, 4977, 4976],
     [4998, 5001, 5031, 5004, 4983, 4998, 5030, 5027],
     [5000, 5000, 1, 4976, 4977, 4976, 4998, 5001],
     [5004, 4983, 4998, 5027, 5000, 5000, 5000, 1],
     [4998, 5026, 4998, 5025, 5000, 5000, 1, 4998],
     [5026, 4998, 5022, 5000, 5000, 1, 4998, 5026],
     [5032, 4998, 5025, 5022, 5000, 5000, 1, 4998],
     [5026, 4998, 5022, 5000, 5000, 5000, 1, 4998],
     [5021, 4998, 5020, 5000, 5000, 1, 4998, 5021],
     [4998, 5017, 5000, 5000, 1, 4998, 5021, 5033],
     [4998, 5020, 5017, 5000, 5000, 1, 4998, 5021],
     [4998, 5017, 5000, 5000, 5000, 1, 4998, 4999],
     [4998, 4996, 5000, 5000, 1, 4998, 4999, 4998]]"

definition smp_indicies_30 :: "int list list" where
  "smp_indicies_30 =
    [[4993, 5000, 5000, 1, 4998, 4999, 5034, 4998],
     [4996, 4993, 5000, 5000, 1, 4998, 4999, 4998],
     [4993, 5000, 5000, 5000, 1, 5036, 5035, 5035],
     [5035, 1, 5038, 5037, 5037, 5037, 1, 5038],
     [5039, 5039, 5039, 1, 5038, 5040, 5040, 5040],
     [1, 5038, 1, 5042, 5041, 5041, 5041, 1],
     [5044, 5043, 5043, 5043, 1, 5044, 5045, 5045],
     [5045, 1, 5044, 5046, 5046, 5046, 1, 5044],
     [1, 5048, 5047, 5047, 5047, 1, 5050, 5049],
     [5049, 5049, 1, 5050, 5051, 5051, 5051, 1],
     [5050, 5052, 5052, 5052, 1, 5050, 1, 5054],
     [5053, 5053, 5053, 1, 5056, 5055, 5055, 5055],
     [1, 5056, 5057, 5057, 5057, 1, 5056, 5058],
     [5058, 5058, 1, 5056, 1, 5060, 5059, 5059],
     [5059, 1, 5062, 5061, 5061, 5061, 1, 5062],
     [5063, 5063, 5063, 1, 5062, 5064, 5064, 5064],
     [1, 5062, 1, 5066, 5065, 5065, 5065, 1],
     [5068, 5067, 5067, 5067, 1, 5068, 5069, 5069],
     [5069, 1, 5068, 5070, 5070, 5070, 1, 5068],
     [1, 5071, 5072, 5073, 5075, 5074, 5076, 5076],
     [1, 5077, 5079, 5078, 5078, 5078, 1, 5080],
     [5081, 5082, 5083, 1, 5084, 1, 5085, 5086],
     [5087, 5088, 1, 5089, 1, 5090, 5091, 5092],
     [5093, 1, 5094, 1, 4976, 4977, 4976, 5004],
     [4983, 1, 5094, 5093, 1, 5094, 5090, 1],
     [5095, 5094, 5093, 5090, 1, 5094, 5090, 1],
     [5089, 5088, 1, 5089, 5085, 1, 5089, 5096],
     [5088, 5085, 1, 5089, 5085, 1, 5084, 5083],
     [1, 5084, 5080, 1, 5084, 5097, 5083, 5080],
     [1, 5084, 5080, 1, 5079, 5098, 5098, 5098],
     [1, 5079, 5099, 5099, 5099, 1, 5079, 1],
     [5090, 5100, 5100, 5100, 1, 5094, 5101, 5101],
     [5101, 1, 5094, 5102, 5102, 5102, 1, 5094],
     [5090, 5090, 5090, 1, 5077, 5079, 5103, 5078],
     [5078, 1, 5077, 5079, 5104, 5098, 5098, 1],
     [5077, 5079, 5099, 5099, 5099, 1, 5077, 5105],
     [5079, 5103, 5106, 5078, 5078, 1, 5077, 5079],
     [5104, 5098, 5098, 5098, 1, 5077, 5079, 5098],
     [5098, 5098, 1, 5077, 5079, 5106, 5078, 5078],
     [1, 5094, 5100, 5100, 5100, 1, 5079, 5078],
     [5078, 5078, 1, 5107, 5108, 5109, 5094, 5110],
     [5111, 5111, 1, 5077, 5113, 5094, 5112, 5112],
     [5112, 1, 5113, 5094, 5114, 5114, 5114, 1],
     [5113, 5094, 5115, 5115, 5115, 1, 5113, 5094],
     [1, 5100, 5100, 5100, 1, 5077, 5113, 5094],
     [5116, 5112, 5112, 1, 5077, 5113, 5094, 5117],
     [5114, 5114, 1, 5077, 5113, 5094, 5115, 5115],
     [5115, 1, 5077, 5118, 5113, 5094, 5116, 5119],
     [5112, 5112, 1, 5077, 5113, 5094, 5117, 5114],
     [5114, 5114, 1, 5077, 5113, 5094, 5114, 5114],
     [5114, 1, 5077, 5113, 5094, 5119, 5112, 5112],
     [1, 5113, 5094, 5112, 5112, 5112, 1, 5120],
     [5121, 5122, 5094, 5123, 5124, 5124, 1, 5077],
     [5126, 5094, 5125, 5125, 5125, 1, 5126, 5094],
     [5127, 5127, 5127, 1, 5126, 5094, 5128, 5128],
     [5128, 1, 5126, 5094, 1, 5107, 5108, 5109],
     [5110, 5111, 5111, 1, 5077, 5126, 5094, 5129],
     [5125, 5125, 1, 5077, 5126, 5094, 5130, 5127],
     [5127, 1, 5077, 5126, 5094, 5128, 5128, 5128],
     [1, 5077, 5131, 5126, 5094, 5129, 5132, 5125],
     [5125, 1, 5077, 5126, 5094, 5130, 5127, 5127],
     [5127, 1, 5077, 5126, 5094, 5127, 5127, 5127],
     [1, 5077, 5126, 5094, 5132, 5125, 5125, 1],
     [5126, 5094, 5125, 5125, 5125, 1, 5133, 5134],
     [5135, 5094, 5136, 5137, 5137, 1, 5077, 5139],
     [5094, 5138, 5138, 5138, 1, 5139, 5094, 5140],
     [5140, 5140, 1, 5139, 5094, 5141, 5141, 5141],
     [1, 5139, 5094, 1, 5120, 5121, 5122, 5123],
     [5124, 5124, 1, 5077, 5139, 5094, 5142, 5138],
     [5138, 1, 5077, 5139, 5094, 5143, 5140, 5140],
     [1, 5077, 5139, 5094, 5141, 5141, 5141, 1],
     [5077, 5144, 5139, 5094, 5142, 5145, 5138, 5138],
     [1, 5077, 5139, 5094, 5143, 5140, 5140, 5140],
     [1, 5077, 5139, 5094, 5140, 5140, 5140, 1],
     [5077, 5139, 5094, 5145, 5138, 5138, 1, 5139],
     [5094, 5138, 5138, 5138, 1, 5146, 5147, 5148],
     [5094, 5149, 5150, 5150, 1, 5077, 5152, 5094],
     [5151, 5151, 5151, 1, 5152, 5094, 5153, 5153],
     [5153, 1, 5152, 5094, 5154, 5154, 5154, 1],
     [5152, 5094, 1, 5133, 5134, 5135, 5136, 5137],
     [5137, 1, 5077, 5152, 5094, 5155, 5151, 5151],
     [1, 5077, 5152, 5094, 5156, 5153, 5153, 1],
     [5077, 5152, 5094, 5154, 5154, 5154, 1, 5077],
     [5157, 5152, 5094, 5155, 5158, 5151, 5151, 1],
     [5077, 5152, 5094, 5156, 5153, 5153, 5153, 1],
     [5077, 5152, 5094, 5153, 5153, 5153, 1, 5077],
     [5152, 5094, 5158, 5151, 5151, 1, 5152, 5094],
     [5151, 5151, 5151, 1, 5159, 5160, 5161, 5094],
     [5162, 5163, 5163, 1, 5077, 5165, 5094, 5164],
     [5164, 5164, 1, 5165, 5094, 5166, 5166, 5166],
     [1, 5165, 5094, 5167, 5167, 5167, 1, 5165],
     [5094, 1, 5146, 5147, 5148, 5149, 5150, 5150],
     [1, 5077, 5165, 5094, 5168, 5164, 5164, 1],
     [5077, 5165, 5094, 5169, 5166, 5166, 1, 5077],
     [5165, 5094, 5167, 5167, 5167, 1, 5077, 5170],
     [5165, 5094, 5168, 5171, 5164, 5164, 1, 5077],
     [5165, 5094, 5169, 5166, 5166, 5166, 1, 5077],
     [5165, 5094, 5166, 5166, 5166, 1, 5077, 5165],
     [5094, 5171, 5164, 5164, 1, 5165, 5094, 5164],
     [5164, 5164, 1, 5172, 1, 5173, 5174, 5175],
     [5094, 5176, 5177, 5177, 1, 5077, 5179, 5094],
     [5178, 5178, 5178, 1, 5179, 5094, 5180, 5180],
     [5180, 1, 5179, 5094, 5181, 5181, 5181, 1],
     [5179, 5094, 1, 5159, 5160, 5161, 5162, 5163],
     [5163, 1, 5077, 5179, 5094, 5182, 5178, 5178],
     [1, 5077, 5179, 5094, 5183, 5180, 5180, 1],
     [5077, 5179, 5094, 5181, 5181, 5181, 1, 5077],
     [5184, 5179, 5094, 5182, 5185, 5178, 5178, 1],
     [5077, 5179, 5094, 5183, 5180, 5180, 5180, 1],
     [5077, 5179, 5094, 5180, 5180, 5180, 1, 5077],
     [5179, 5094, 5185, 5178, 5178, 1, 5179, 5094],
     [5178, 5178, 5178, 1, 5186, 5186, 5186, 1],
     [4978, 4978, 4978, 1, 4976, 4977, 4976, 4985],
     [5187, 4982, 4982, 4983, 4985, 4986, 4985, 4985],
     [4985, 4985, 4985, 4985, 1, 5188, 5188, 5188],
     [1, 4985, 4985, 4985, 1, 4976, 4977, 4976],
     [4982, 5189, 4983, 4982, 4982, 4982, 4982, 4982],
     [4982, 4982, 1, 5190, 5190, 5190, 1, 4982],
     [4982, 4982, 1, 4976, 4977, 4976, 4982, 5189],
     [4983, 4982, 4984, 4982, 4982, 4982, 4982, 4982],
     [4982, 1, 4976, 4977, 4976, 4978, 4979, 4980],
     [5191, 4985, 4983, 4978, 4986, 4978, 4978, 4978],
     [4978, 4978, 4978, 1, 4976, 4977, 4976, 5192],
     [5193, 5194, 4985, 4983, 5192, 4986, 5195, 5192],
     [5192, 5192, 5192, 5192, 5192, 1, 4976, 4977],
     [4976, 5192, 5193, 5194, 5196, 4983, 5192, 5197],
     [5192, 5192, 5192, 5192, 5192, 5192, 1, 5193],
     [5198, 5199, 5193, 5200, 5193, 5193, 5193, 5193],
     [5193, 5193, 1, 5201, 5201, 5201, 1, 5193],
     [5193, 5193, 1, 5199, 5202, 5199, 5200, 5199],
     [5199, 5199, 5199, 5199, 5199, 5199, 1, 5203],
     [5203, 5203, 1, 5199, 5199, 5199, 1, 5204],
     [5205, 5206, 5195, 5207, 5208, 5208, 1, 5209],
     [5210, 5209, 5211, 5211, 5211, 1, 5209, 5209],
     [5211, 5211, 5211, 1, 5209, 5212, 5209, 5211],
     [5211, 5211, 1, 5211, 5208, 5208, 1, 4976],
     [4977, 4976, 5213, 5214, 4982, 5215, 4983, 5213],
     [5208, 5208, 5208, 1, 5213, 5213, 5208, 5208],
     [5208, 1, 4976, 4977, 4976, 4982, 5215, 4983],
     [5211, 5208, 5208, 1, 5216, 5218, 5217, 5219],
     [1, 5220, 5221, 1, 5222, 5223, 1, 5224],
     [1, 4976, 4977, 4976, 4982, 4983, 1, 4976],
     [4977, 4976, 4982, 4983, 5224, 1, 4976, 4977],
     [4976, 4982, 4983, 5223, 1, 4976, 4977, 4976],
     [4982, 4983, 5219, 1, 4976, 4977, 4976, 4982],
     [4983, 5221, 1, 4976, 4977, 4976, 4982, 5225],
     [4983, 5219, 5221, 1, 4976, 4977, 4976, 4982],
     [5226, 4983, 5221, 5223, 1, 4976, 4977, 4976],
     [4982, 5227, 4983, 5223, 5224, 1, 4976, 4977],
     [4976, 4982, 4983, 5224, 1, 5228, 5229, 5230]]"

definition smp_indicies_31 :: "int list list" where
  "smp_indicies_31 =
    [[5231, 5208, 5208, 1, 5209, 5232, 5209, 5211],
     [5211, 5211, 1, 5233, 5234, 5235, 5236, 5208],
     [5208, 1, 5209, 5237, 5209, 5211, 5211, 5211],
     [1, 5238, 5239, 5240, 5241, 5208, 5208, 1],
     [4976, 4977, 4976, 5209, 5212, 4982, 5215, 4983],
     [5209, 5211, 5211, 5211, 1, 4976, 4977, 4976],
     [5209, 5212, 4982, 5215, 4983, 5209, 5241, 5211],
     [5211, 1, 4976, 4977, 4976, 5209, 5212, 4982],
     [5215, 4983, 5209, 5238, 5211, 5211, 1, 4976],
     [4977, 4976, 5209, 5212, 4982, 5242, 5215, 4983],
     [5209, 5241, 5238, 5211, 5211, 1, 4976, 4977],
     [4976, 5209, 5212, 4982, 5215, 4983, 5209, 5238],
     [5211, 5211, 5211, 1, 5209, 5237, 5209, 5236],
     [5211, 5211, 1, 5209, 5237, 5209, 5233, 5211],
     [5211, 1, 5209, 5237, 5243, 5209, 5236, 5233],
     [5211, 5211, 1, 5209, 5237, 5209, 5233, 5211],
     [5211, 5211, 1, 5209, 5232, 5209, 5231, 5211],
     [5211, 1, 5209, 5232, 5209, 5228, 5211, 5211],
     [1, 5209, 5232, 5244, 5209, 5231, 5228, 5211],
     [5211, 1, 5209, 5232, 5209, 5228, 5211, 5211],
     [5211, 1, 5209, 5210, 5209, 5207, 5211, 5211],
     [1, 5209, 5210, 5209, 5204, 5211, 5211, 1],
     [5209, 5210, 5245, 5209, 5207, 5204, 5211, 5211],
     [1, 5209, 5210, 5209, 5204, 5211, 5211, 5211],
     [1, 5247, 5246, 5246, 5246, 1, 5249, 5248],
     [5248, 5248, 1, 5249, 5250, 5250, 5250, 1],
     [5249, 5251, 5251, 5251, 1, 5249, 1, 5253],
     [5252, 5252, 5252, 1, 5255, 5254, 5254, 5254],
     [1, 5255, 5256, 5256, 5256, 1, 5255, 5257],
     [5257, 5257, 1, 5255, 1, 5259, 5258, 5258],
     [5258, 1, 5261, 5260, 5260, 5260, 1, 5261],
     [5262, 5262, 5262, 1, 5261, 5263, 5263, 5263],
     [1, 5261, 1, 5265, 5264, 5264, 5264, 1],
     [5267, 5266, 5266, 5266, 1, 5267, 5268, 5268],
     [5268, 1, 5267, 5269, 5269, 5269, 1, 5267],
     [1, 5271, 5270, 5270, 5270, 1, 5273, 5272],
     [5272, 5272, 1, 5273, 5274, 5274, 5274, 1],
     [5273, 5275, 5275, 5275, 1, 5273, 1, 5277],
     [5276, 5276, 5276, 1, 5279, 5278, 5278, 5278],
     [1, 5279, 5280, 5280, 5280, 1, 5279, 5281],
     [5281, 5281, 1, 5279, 1, 5282, 5283, 5284],
     [5286, 5285, 5287, 5287, 1, 5288, 5290, 5289],
     [5289, 5289, 1, 5291, 5292, 5293, 5294, 1],
     [5295, 1, 5296, 5297, 5298, 5299, 1, 5300],
     [1, 5301, 5302, 5303, 5304, 1, 5305, 1],
     [4976, 4977, 4976, 4982, 5215, 4983, 1, 5305],
     [5304, 1, 5305, 5301, 1, 5306, 5305, 5304],
     [5301, 1, 5305, 5301, 1, 5300, 5299, 1],
     [5300, 5296, 1, 5300, 5307, 5299, 5296, 1],
     [5300, 5296, 1, 5295, 5294, 1, 5295, 5291],
     [1, 5295, 5308, 5294, 5291, 1, 5295, 5291],
     [1, 5290, 5309, 5309, 5309, 1, 5290, 5310],
     [5310, 5310, 1, 5290, 1, 5301, 5311, 5311],
     [5311, 1, 5305, 5312, 5312, 5312, 1, 5305],
     [5313, 5313, 5313, 1, 5305, 5301, 5301, 5301],
     [1, 5288, 5290, 5314, 5289, 5289, 1, 5288],
     [5290, 5315, 5309, 5309, 1, 5288, 5290, 5310],
     [5310, 5310, 1, 5288, 5316, 5290, 5314, 5317],
     [5289, 5289, 1, 5288, 5290, 5315, 5309, 5309],
     [5309, 1, 5288, 5290, 5309, 5309, 5309, 1],
     [5288, 5290, 5317, 5289, 5289, 1, 5305, 5311],
     [5311, 5311, 1, 5290, 5289, 5289, 5289, 1],
     [5318, 5319, 5320, 5305, 5321, 5322, 5322, 1],
     [5288, 5324, 5305, 5323, 5323, 5323, 1, 5324],
     [5305, 5325, 5325, 5325, 1, 5324, 5305, 5326],
     [5326, 5326, 1, 5324, 5305, 1, 5311, 5311],
     [5311, 1, 5288, 5324, 5305, 5327, 5323, 5323],
     [1, 5288, 5324, 5305, 5328, 5325, 5325, 1],
     [5288, 5324, 5305, 5326, 5326, 5326, 1, 5288],
     [5329, 5324, 5305, 5327, 5330, 5323, 5323, 1],
     [5288, 5324, 5305, 5328, 5325, 5325, 5325, 1],
     [5288, 5324, 5305, 5325, 5325, 5325, 1, 5288],
     [5324, 5305, 5330, 5323, 5323, 1, 5324, 5305],
     [5323, 5323, 5323, 1, 5331, 5332, 5333, 5305],
     [5334, 5335, 5335, 1, 5288, 5337, 5305, 5336],
     [5336, 5336, 1, 5337, 5305, 5338, 5338, 5338],
     [1, 5337, 5305, 5339, 5339, 5339, 1, 5337],
     [5305, 1, 5318, 5319, 5320, 5321, 5322, 5322],
     [1, 5288, 5337, 5305, 5340, 5336, 5336, 1],
     [5288, 5337, 5305, 5341, 5338, 5338, 1, 5288],
     [5337, 5305, 5339, 5339, 5339, 1, 5288, 5342],
     [5337, 5305, 5340, 5343, 5336, 5336, 1, 5288],
     [5337, 5305, 5341, 5338, 5338, 5338, 1, 5288],
     [5337, 5305, 5338, 5338, 5338, 1, 5288, 5337],
     [5305, 5343, 5336, 5336, 1, 5337, 5305, 5336],
     [5336, 5336, 1, 5344, 5345, 5346, 5305, 5347],
     [5348, 5348, 1, 5288, 5350, 5305, 5349, 5349],
     [5349, 1, 5350, 5305, 5351, 5351, 5351, 1],
     [5350, 5305, 5352, 5352, 5352, 1, 5350, 5305],
     [1, 5331, 5332, 5333, 5334, 5335, 5335, 1],
     [5288, 5350, 5305, 5353, 5349, 5349, 1, 5288],
     [5350, 5305, 5354, 5351, 5351, 1, 5288, 5350],
     [5305, 5352, 5352, 5352, 1, 5288, 5355, 5350],
     [5305, 5353, 5356, 5349, 5349, 1, 5288, 5350],
     [5305, 5354, 5351, 5351, 5351, 1, 5288, 5350],
     [5305, 5351, 5351, 5351, 1, 5288, 5350, 5305],
     [5356, 5349, 5349, 1, 5350, 5305, 5349, 5349],
     [5349, 1, 5357, 5358, 5359, 5305, 5360, 5361],
     [5361, 1, 5288, 5363, 5305, 5362, 5362, 5362],
     [1, 5363, 5305, 5364, 5364, 5364, 1, 5363],
     [5305, 5365, 5365, 5365, 1, 5363, 5305, 1],
     [5344, 5345, 5346, 5347, 5348, 5348, 1, 5288],
     [5363, 5305, 5366, 5362, 5362, 1, 5288, 5363],
     [5305, 5367, 5364, 5364, 1, 5288, 5363, 5305],
     [5365, 5365, 5365, 1, 5288, 5368, 5363, 5305],
     [5366, 5369, 5362, 5362, 1, 5288, 5363, 5305],
     [5367, 5364, 5364, 5364, 1, 5288, 5363, 5305],
     [5364, 5364, 5364, 1, 5288, 5363, 5305, 5369],
     [5362, 5362, 1, 5363, 5305, 5362, 5362, 5362],
     [1, 5370, 5371, 5372, 5305, 5373, 5374, 5374],
     [1, 5288, 5376, 5305, 5375, 5375, 5375, 1],
     [5376, 5305, 5377, 5377, 5377, 1, 5376, 5305],
     [5378, 5378, 5378, 1, 5376, 5305, 1, 5357],
     [5358, 5359, 5360, 5361, 5361, 1, 5288, 5376],
     [5305, 5379, 5375, 5375, 1, 5288, 5376, 5305],
     [5380, 5377, 5377, 1, 5288, 5376, 5305, 5378],
     [5378, 5378, 1, 5288, 5381, 5376, 5305, 5379],
     [5382, 5375, 5375, 1, 5288, 5376, 5305, 5380],
     [5377, 5377, 5377, 1, 5288, 5376, 5305, 5377],
     [5377, 5377, 1, 5288, 5376, 5305, 5382, 5375],
     [5375, 1, 5376, 5305, 5375, 5375, 5375, 1],
     [5383, 1, 5384, 5385, 5386, 5305, 5387, 5388],
     [5388, 1, 5288, 5390, 5305, 5389, 5389, 5389],
     [1, 5390, 5305, 5391, 5391, 5391, 1, 5390],
     [5305, 5392, 5392, 5392, 1, 5390, 5305, 1],
     [5370, 5371, 5372, 5373, 5374, 5374, 1, 5288],
     [5390, 5305, 5393, 5389, 5389, 1, 5288, 5390],
     [5305, 5394, 5391, 5391, 1, 5288, 5390, 5305],
     [5392, 5392, 5392, 1, 5288, 5395, 5390, 5305],
     [5393, 5396, 5389, 5389, 1, 5288, 5390, 5305],
     [5394, 5391, 5391, 5391, 1, 5288, 5390, 5305],
     [5391, 5391, 5391, 1, 5288, 5390, 5305, 5396],
     [5389, 5389, 1, 5390, 5305, 5389, 5389, 5389],
     [1, 5397, 5397, 5397, 1, 5192, 5192, 5192],
     [1, 4976, 4977, 4976, 5196, 5398, 4982, 4982],
     [4983, 5196, 5197, 5196, 5196, 5196, 5196, 5196],
     [5196, 1, 5399, 5399, 5399, 1, 5196, 5196],
     [5196, 1, 4976, 4977, 4976, 4982, 5189, 4983],
     [4982, 5195, 4982, 4982, 4982, 4982, 4982, 4982],
     [1, 4952, 4953, 4952, 4954, 4954, 4954, 4954],
     [4974, 4975, 4955, 5400, 5400, 4954, 4974, 4974],
     [4974, 4954, 4974, 1, 4952, 4953, 4952, 4954],
     [4954, 4954, 4954, 4974, 4975, 4955, 5401, 5401],
     [4954, 4974, 4974, 4974, 4954, 4974, 1, 4952],
     [4953, 4952, 4954, 4954, 4954, 4954, 4974, 5402],
     [4955, 5403, 5403, 4954, 4974, 4974, 4974, 4954],
     [4974, 1, 5404, 5405, 5406, 5407, 5408, 5404],
     [5411, 5404, 5404, 5404, 5404, 5409, 5410, 5410],
     [1, 5412, 5413, 5414, 5412, 5415, 5412, 5412],
     [5412, 5412, 5412, 5412, 1, 5416, 5416, 5416]]"

definition smp_indicies_32 :: "int list list" where
  "smp_indicies_32 =
    [[1, 5412, 5412, 5412, 1, 5414, 5417, 5414],
     [5415, 5414, 5414, 5414, 5414, 5414, 5414, 5414],
     [1, 5418, 5418, 5418, 1, 5414, 5414, 5414],
     [1, 5419, 5420, 5421, 5411, 5422, 5423, 5423],
     [1, 5424, 5425, 5424, 5426, 5426, 5426, 1],
     [5424, 5424, 5426, 5426, 5426, 1, 5424, 5427],
     [5424, 5426, 5426, 5426, 1, 5426, 5428, 5428],
     [1, 5429, 5430, 5429, 5431, 5432, 5433, 5434],
     [5431, 5428, 5428, 5428, 1, 5431, 5431, 5428],
     [5428, 5428, 1, 5429, 5430, 5429, 5433, 5434],
     [5426, 5428, 5428, 1, 5435, 5437, 5436, 5438],
     [1, 5439, 5440, 1, 5441, 5442, 1, 5443],
     [1, 5444, 5445, 5444, 5446, 1, 5444, 5445],
     [5444, 5446, 5443, 1, 5444, 5445, 5444, 5446],
     [5442, 1, 5444, 5445, 5444, 5446, 5447, 1],
     [5444, 5445, 5444, 5446, 5440, 1, 5444, 5445],
     [5444, 5448, 5446, 5447, 5440, 1, 5444, 5445],
     [5444, 5449, 5446, 5440, 5442, 1, 5444, 5445],
     [5444, 5450, 5446, 5442, 5443, 1, 5444, 5445],
     [5444, 5446, 5443, 1, 5451, 5452, 5453, 5454],
     [5428, 5428, 1, 5424, 5455, 5424, 5426, 5426],
     [5426, 1, 5456, 5457, 5458, 5459, 5428, 5428],
     [1, 5424, 5460, 5424, 5426, 5426, 5426, 1],
     [5461, 5462, 5463, 5464, 5428, 5428, 1, 5465],
     [5466, 5465, 5424, 5427, 5467, 5468, 5424, 5426],
     [5426, 5426, 1, 5465, 5466, 5465, 5424, 5427],
     [5467, 5468, 5424, 5464, 5426, 5426, 1, 5465],
     [5466, 5465, 5424, 5427, 5467, 5468, 5424, 5461],
     [5426, 5426, 1, 5465, 5466, 5465, 5424, 5427],
     [5469, 5467, 5468, 5424, 5464, 5461, 5426, 5426],
     [1, 5465, 5466, 5465, 5424, 5427, 5467, 5468],
     [5424, 5461, 5426, 5426, 5426, 1, 5424, 5460],
     [5424, 5459, 5426, 5426, 1, 5424, 5460, 5424],
     [5456, 5426, 5426, 1, 5424, 5460, 5470, 5424],
     [5459, 5456, 5426, 5426, 1, 5424, 5460, 5424],
     [5456, 5426, 5426, 5426, 1, 5424, 5455, 5424],
     [5454, 5426, 5426, 1, 5424, 5455, 5424, 5451],
     [5426, 5426, 1, 5424, 5455, 5471, 5424, 5454],
     [5451, 5426, 5426, 1, 5424, 5455, 5424, 5451],
     [5426, 5426, 5426, 1, 5424, 5425, 5424, 5472],
     [5426, 5426, 1, 5424, 5425, 5424, 5473, 5426],
     [5426, 1, 5424, 5425, 5474, 5424, 5472, 5473],
     [5426, 5426, 1, 5424, 5425, 5424, 5473, 5426],
     [5426, 5426, 1, 5476, 5475, 5475, 5475, 1],
     [5478, 5477, 5477, 5477, 1, 5478, 5479, 5479],
     [5479, 1, 5478, 5480, 5480, 5480, 1, 5478],
     [1, 5482, 5481, 5481, 5481, 1, 5484, 5483],
     [5483, 5483, 1, 5484, 5485, 5485, 5485, 1],
     [5484, 5486, 5486, 5486, 1, 5484, 1, 5488],
     [5487, 5487, 5487, 1, 5490, 5489, 5489, 5489],
     [1, 5490, 5491, 5491, 5491, 1, 5490, 5492],
     [5492, 5492, 1, 5490, 1, 5494, 5493, 5493],
     [5493, 1, 5496, 5495, 5495, 5495, 1, 5496],
     [5497, 5497, 5497, 1, 5496, 5498, 5498, 5498],
     [1, 5496, 1, 5500, 5499, 5499, 5499, 1],
     [5502, 5501, 5501, 5501, 1, 5502, 5503, 5503],
     [5503, 1, 5502, 5504, 5504, 5504, 1, 5502],
     [1, 5506, 5505, 5505, 5505, 1, 5508, 5507],
     [5507, 5507, 1, 5508, 5509, 5509, 5509, 1],
     [5508, 5510, 5510, 5510, 1, 5508, 1, 5511],
     [5512, 5513, 5515, 5514, 5516, 5516, 1, 5517],
     [5519, 5518, 5518, 5518, 1, 5520, 5521, 5522],
     [5523, 1, 5524, 1, 5525, 5526, 5527, 5528],
     [1, 5529, 1, 5530, 5531, 5532, 5533, 1],
     [5534, 1, 5535, 5536, 5535, 5537, 5538, 1],
     [5534, 5533, 1, 5534, 5530, 1, 5539, 5534],
     [5533, 5530, 1, 5534, 5530, 1, 5529, 5528],
     [1, 5529, 5525, 1, 5529, 5540, 5528, 5525],
     [1, 5529, 5525, 1, 5524, 5523, 1, 5524],
     [5520, 1, 5524, 5541, 5523, 5520, 1, 5524],
     [5520, 1, 5519, 5542, 5542, 5542, 1, 5519],
     [5543, 5543, 5543, 1, 5519, 1, 5530, 5544],
     [5544, 5544, 1, 5534, 5545, 5545, 5545, 1],
     [5534, 5546, 5546, 5546, 1, 5534, 5530, 5530],
     [5530, 1, 5517, 5519, 5547, 5518, 5518, 1],
     [5517, 5519, 5548, 5542, 5542, 1, 5517, 5519],
     [5543, 5543, 5543, 1, 5517, 5549, 5519, 5547],
     [5550, 5518, 5518, 1, 5517, 5519, 5548, 5542],
     [5542, 5542, 1, 5517, 5519, 5542, 5542, 5542],
     [1, 5517, 5519, 5550, 5518, 5518, 1, 5534],
     [5544, 5544, 5544, 1, 5519, 5518, 5518, 5518],
     [1, 5551, 5552, 5553, 5534, 5554, 5555, 5555],
     [1, 5517, 5557, 5534, 5556, 5556, 5556, 1],
     [5557, 5534, 5558, 5558, 5558, 1, 5557, 5534],
     [5559, 5559, 5559, 1, 5557, 5534, 1, 5544],
     [5544, 5544, 1, 5517, 5557, 5534, 5560, 5556],
     [5556, 1, 5517, 5557, 5534, 5561, 5558, 5558],
     [1, 5517, 5557, 5534, 5559, 5559, 5559, 1],
     [5517, 5562, 5557, 5534, 5560, 5563, 5556, 5556],
     [1, 5517, 5557, 5534, 5561, 5558, 5558, 5558],
     [1, 5517, 5557, 5534, 5558, 5558, 5558, 1],
     [5517, 5557, 5534, 5563, 5556, 5556, 1, 5557],
     [5534, 5556, 5556, 5556, 1, 5564, 5565, 5566],
     [5534, 5567, 5568, 5568, 1, 5517, 5570, 5534],
     [5569, 5569, 5569, 1, 5570, 5534, 5571, 5571],
     [5571, 1, 5570, 5534, 5572, 5572, 5572, 1],
     [5570, 5534, 1, 5551, 5552, 5553, 5554, 5555],
     [5555, 1, 5517, 5570, 5534, 5573, 5569, 5569],
     [1, 5517, 5570, 5534, 5574, 5571, 5571, 1],
     [5517, 5570, 5534, 5572, 5572, 5572, 1, 5517],
     [5575, 5570, 5534, 5573, 5576, 5569, 5569, 1],
     [5517, 5570, 5534, 5574, 5571, 5571, 5571, 1],
     [5517, 5570, 5534, 5571, 5571, 5571, 1, 5517],
     [5570, 5534, 5576, 5569, 5569, 1, 5570, 5534],
     [5569, 5569, 5569, 1, 5577, 5578, 5579, 5534],
     [5580, 5581, 5581, 1, 5517, 5583, 5534, 5582],
     [5582, 5582, 1, 5583, 5534, 5584, 5584, 5584],
     [1, 5583, 5534, 5585, 5585, 5585, 1, 5583],
     [5534, 1, 5564, 5565, 5566, 5567, 5568, 5568],
     [1, 5517, 5583, 5534, 5586, 5582, 5582, 1],
     [5517, 5583, 5534, 5587, 5584, 5584, 1, 5517],
     [5583, 5534, 5585, 5585, 5585, 1, 5517, 5588],
     [5583, 5534, 5586, 5589, 5582, 5582, 1, 5517],
     [5583, 5534, 5587, 5584, 5584, 5584, 1, 5517],
     [5583, 5534, 5584, 5584, 5584, 1, 5517, 5583],
     [5534, 5589, 5582, 5582, 1, 5583, 5534, 5582],
     [5582, 5582, 1, 5590, 5591, 5592, 5534, 5593],
     [5594, 5594, 1, 5517, 5596, 5534, 5595, 5595],
     [5595, 1, 5596, 5534, 5597, 5597, 5597, 1],
     [5596, 5534, 5598, 5598, 5598, 1, 5596, 5534],
     [1, 5577, 5578, 5579, 5580, 5581, 5581, 1],
     [5517, 5596, 5534, 5599, 5595, 5595, 1, 5517],
     [5596, 5534, 5600, 5597, 5597, 1, 5517, 5596],
     [5534, 5598, 5598, 5598, 1, 5517, 5601, 5596],
     [5534, 5599, 5602, 5595, 5595, 1, 5517, 5596],
     [5534, 5600, 5597, 5597, 5597, 1, 5517, 5596],
     [5534, 5597, 5597, 5597, 1, 5517, 5596, 5534],
     [5602, 5595, 5595, 1, 5596, 5534, 5595, 5595],
     [5595, 1, 5603, 5604, 5605, 5534, 5606, 5607],
     [5607, 1, 5517, 5609, 5534, 5608, 5608, 5608],
     [1, 5609, 5534, 5610, 5610, 5610, 1, 5609],
     [5534, 5611, 5611, 5611, 1, 5609, 5534, 1],
     [5590, 5591, 5592, 5593, 5594, 5594, 1, 5517],
     [5609, 5534, 5612, 5608, 5608, 1, 5517, 5609],
     [5534, 5613, 5610, 5610, 1, 5517, 5609, 5534],
     [5611, 5611, 5611, 1, 5517, 5614, 5609, 5534],
     [5612, 5615, 5608, 5608, 1, 5517, 5609, 5534],
     [5613, 5610, 5610, 5610, 1, 5517, 5609, 5534],
     [5610, 5610, 5610, 1, 5517, 5609, 5534, 5615],
     [5608, 5608, 1, 5609, 5534, 5608, 5608, 5608],
     [1, 5616, 1, 5617, 5618, 5619, 5534, 5620],
     [5621, 5621, 1, 5517, 5623, 5534, 5622, 5622],
     [5622, 1, 5623, 5534, 5624, 5624, 5624, 1],
     [5623, 5534, 5625, 5625, 5625, 1, 5623, 5534],
     [1, 5603, 5604, 5605, 5606, 5607, 5607, 1],
     [5517, 5623, 5534, 5626, 5622, 5622, 1, 5517],
     [5623, 5534, 5627, 5624, 5624, 1, 5517, 5623],
     [5534, 5625, 5625, 5625, 1, 5517, 5628, 5623],
     [5534, 5626, 5629, 5622, 5622, 1, 5517, 5623],
     [5534, 5627, 5624, 5624, 5624, 1, 5517, 5623]]"

definition smp_indicies_33 :: "int list list" where
  "smp_indicies_33 =
    [[5534, 5624, 5624, 5624, 1, 5517, 5623, 5534],
     [5629, 5622, 5622, 1, 5623, 5534, 5622, 5622],
     [5622, 1, 5412, 5413, 5630, 5631, 5412, 5414],
     [5412, 5415, 5630, 5412, 5412, 5632, 5632, 5632],
     [1, 5412, 5413, 5630, 5414, 5412, 5415, 5630],
     [5412, 5412, 5412, 5632, 5632, 5632, 1, 5412],
     [5413, 5630, 5633, 5412, 5414, 5412, 5415, 5630],
     [5412, 5412, 5632, 5632, 5632, 1, 5412, 5413],
     [5414, 5412, 5415, 5412, 5412, 5412, 5412, 5632],
     [5634, 5634, 1, 5429, 5430, 5429, 5412, 5413],
     [5635, 5636, 5412, 5637, 5434, 5412, 5415, 5635],
     [5412, 5412, 5634, 5634, 5634, 1, 5412, 5413],
     [5635, 5414, 5412, 5415, 5635, 5412, 5412, 5412],
     [5634, 5634, 5634, 1, 5429, 5430, 5429, 5412],
     [5413, 5637, 5434, 5412, 5415, 5412, 5412, 5412],
     [5412, 5632, 5634, 5634, 1, 5414, 5417, 5638],
     [5640, 5414, 5415, 5414, 5414, 5414, 5414, 5639],
     [5641, 5414, 5414, 1, 5414, 5417, 5642, 5414],
     [5415, 5414, 5414, 5414, 5414, 5643, 5414, 5414],
     [1, 5414, 5417, 5644, 5414, 5415, 5414, 5414],
     [5414, 5414, 5645, 5414, 5414, 1, 5414, 5417],
     [5414, 5414, 5415, 5414, 5414, 5414, 5414, 5646],
     [5414, 5414, 1, 5444, 5445, 5444, 5414, 5417],
     [5446, 5414, 5415, 5414, 5414, 5414, 5414, 5414],
     [5414, 5414, 1, 5444, 5445, 5444, 5414, 5417],
     [5446, 5414, 5415, 5414, 5414, 5414, 5414, 5646],
     [5414, 5414, 1, 5444, 5445, 5444, 5414, 5417],
     [5446, 5414, 5415, 5414, 5414, 5414, 5414, 5645],
     [5414, 5414, 1, 5444, 5445, 5444, 5414, 5417],
     [5446, 5414, 5415, 5414, 5414, 5414, 5414, 5647],
     [5414, 5414, 1, 5444, 5445, 5444, 5414, 5417],
     [5446, 5414, 5415, 5414, 5414, 5414, 5414, 5643],
     [5414, 5414, 1, 5444, 5445, 5444, 5414, 5417],
     [5648, 5446, 5414, 5415, 5414, 5414, 5414, 5414],
     [5647, 5643, 5414, 5414, 1, 5444, 5445, 5444],
     [5414, 5417, 5649, 5446, 5414, 5415, 5414, 5414],
     [5414, 5414, 5643, 5645, 5414, 5414, 1, 5444],
     [5445, 5444, 5414, 5417, 5650, 5446, 5414, 5415],
     [5414, 5414, 5414, 5414, 5645, 5646, 5414, 5414],
     [1, 5444, 5445, 5444, 5414, 5417, 5446, 5414],
     [5415, 5414, 5414, 5414, 5414, 5646, 5414, 5414],
     [5414, 1, 5412, 5413, 5651, 5652, 5653, 5414],
     [5412, 5415, 5412, 5412, 5412, 5412, 5654, 5634],
     [5634, 1, 5412, 5413, 5630, 5655, 5412, 5414],
     [5412, 5415, 5630, 5412, 5412, 5632, 5632, 5632],
     [1, 5412, 5413, 5656, 5657, 5658, 5414, 5412],
     [5415, 5412, 5412, 5412, 5412, 5659, 5634, 5634],
     [1, 5412, 5413, 5630, 5660, 5412, 5414, 5412],
     [5415, 5630, 5412, 5412, 5632, 5632, 5632, 1],
     [5412, 5413, 5661, 5662, 5663, 5414, 5412, 5415],
     [5412, 5412, 5412, 5412, 5664, 5634, 5634, 1],
     [5465, 5466, 5465, 5412, 5413, 5630, 5633, 5412],
     [5665, 5468, 5412, 5415, 5630, 5412, 5412, 5632],
     [5632, 5632, 1, 5465, 5466, 5465, 5412, 5413],
     [5630, 5633, 5412, 5665, 5468, 5412, 5415, 5630],
     [5412, 5412, 5664, 5632, 5632, 1, 5465, 5466],
     [5465, 5412, 5413, 5630, 5633, 5412, 5665, 5468],
     [5412, 5415, 5630, 5412, 5412, 5661, 5632, 5632],
     [1, 5465, 5466, 5465, 5412, 5413, 5630, 5633],
     [5412, 5666, 5665, 5468, 5412, 5415, 5630, 5412],
     [5412, 5664, 5661, 5632, 5632, 1, 5465, 5466],
     [5465, 5412, 5413, 5630, 5633, 5412, 5665, 5468],
     [5412, 5415, 5630, 5412, 5412, 5661, 5632, 5632],
     [5632, 1, 5412, 5413, 5630, 5660, 5412, 5414],
     [5412, 5415, 5630, 5412, 5412, 5659, 5632, 5632],
     [1, 5412, 5413, 5630, 5660, 5412, 5414, 5412],
     [5415, 5630, 5412, 5412, 5656, 5632, 5632, 1],
     [5412, 5413, 5630, 5660, 5412, 5667, 5414, 5412],
     [5415, 5630, 5412, 5412, 5659, 5656, 5632, 5632],
     [1, 5412, 5413, 5630, 5660, 5412, 5414, 5412],
     [5415, 5630, 5412, 5412, 5656, 5632, 5632, 5632],
     [1, 5412, 5413, 5630, 5655, 5412, 5414, 5412],
     [5415, 5630, 5412, 5412, 5654, 5632, 5632, 1],
     [5412, 5413, 5630, 5655, 5412, 5414, 5412, 5415],
     [5630, 5412, 5412, 5651, 5632, 5632, 1, 5412],
     [5413, 5630, 5655, 5412, 5668, 5414, 5412, 5415],
     [5630, 5412, 5412, 5654, 5651, 5632, 5632, 1],
     [5412, 5413, 5630, 5655, 5412, 5414, 5412, 5415],
     [5630, 5412, 5412, 5651, 5632, 5632, 5632, 1],
     [5412, 5413, 5630, 5631, 5412, 5414, 5412, 5415],
     [5630, 5412, 5412, 5669, 5632, 5632, 1, 5412],
     [5413, 5630, 5631, 5412, 5414, 5412, 5415, 5630],
     [5412, 5412, 5670, 5632, 5632, 1, 5412, 5413],
     [5630, 5631, 5412, 5671, 5414, 5412, 5415, 5630],
     [5412, 5412, 5669, 5670, 5632, 5632, 1, 5412],
     [5413, 5630, 5631, 5412, 5414, 5412, 5415, 5630],
     [5412, 5412, 5670, 5632, 5632, 5632, 1, 4952],
     [4953, 4952, 4954, 4954, 4954, 4954, 4974, 5672],
     [4955, 4954, 4974, 4974, 4974, 4954, 4974, 1],
     [4952, 4953, 4952, 4954, 4954, 4954, 4954, 4974],
     [4975, 4955, 5673, 5673, 4954, 4974, 4974, 4974],
     [4954, 4974, 1, 4952, 4953, 4952, 4954, 4954],
     [4954, 4954, 4974, 4975, 4955, 5674, 5674, 4954],
     [4974, 4974, 4974, 4954, 4974, 1, 4952, 4953],
     [4952, 4954, 4954, 4954, 4954, 4974, 5675, 4955],
     [4954, 4974, 4974, 4974, 4954, 4974, 1, 5676],
     [5676, 5678, 5677, 5677, 5676, 5676, 5676, 1],
     [5679, 5680, 5679, 5681, 5682, 5681, 5681, 5681],
     [5681, 5681, 1, 5681, 5681, 5683, 5683, 5681],
     [5681, 5681, 1, 5684, 5684, 5685, 1, 5679],
     [5680, 5679, 5682, 5685, 5685, 5685, 1, 60],
     [60, 61, 61, 61, 62, 5686, 5686, 61],
     [61, 61, 61, 61, 61, 1, 60, 60],
     [61, 61, 61, 62, 5687, 5687, 61, 61],
     [61, 61, 61, 61, 1, 219, 219, 61],
     [61, 61, 220, 61, 61, 61, 61, 61],
     [61, 1, 5694, 5695, 5696, 1, 73, 5688],
     [5689, 5690, 5691, 5692, 1, 1, 5693, 5693],
     [1, 5688, 1, 5689, 1, 5690, 1, 5691],
     [1, 5697, 1, 5693, 46, 5693, 47, 47],
     [47, 48, 49, 50, 51, 52, 53, 54],
     [55, 56, 57, 58, 48, 49, 50, 51],
     [52, 53, 54, 55, 56, 57, 58, 47],
     [47, 47, 47, 47, 47, 1, 5698, 5699],
     [5698, 214, 1, 74, 75, 76, 77, 78],
     [1, 73, 5700, 5701, 5700, 123, 1, 74],
     [75, 76, 77, 78, 1, 73, 1, 79],
     [5702, 73, 74, 75, 76, 77, 78, 1],
     [5702, 5702, 5693, 5702, 5708, 5709, 5710, 5703],
     [5704, 5705, 5706, 5707, 5702, 1, 5702, 1],
     [5703, 1, 5704, 1, 5705, 1, 5706, 1],
     [5711, 1, 5702, 5702, 1, 5712, 5713, 5712],
     [5714, 1, 5715, 5716, 5715, 5717, 1, 5718],
     [1, 5719, 5719, 1, 5719, 5719, 5717, 1],
     [5720, 5720, 1, 5721, 5721, 1, 5722, 5722],
     [1, 5723, 5724, 5724, 1, 5725, 5726, 5727],
     [5728, 5729, 5725, 5725, 5725, 5732, 5725, 5725],
     [5725, 5730, 5731, 5731, 1, 5733, 5734, 5735],
     [5733, 5736, 5733, 5733, 5733, 5733, 5733, 1],
     [5737, 5737, 5737, 1, 5733, 5733, 5733, 1],
     [5735, 5738, 5735, 5736, 5735, 5735, 5735, 5735],
     [5735, 5735, 1, 5739, 5739, 5739, 1, 5735],
     [5735, 5735, 1, 5740, 5741, 5742, 5732, 5743],
     [5744, 5744, 1, 5745, 5746, 5745, 5747, 5747],
     [5747, 1, 5745, 5745, 5747, 5747, 5747, 1],
     [5745, 5748, 5745, 5747, 5747, 5747, 1, 5747],
     [5749, 5749, 1, 5750, 5751, 5752, 5753, 5754],
     [5755, 5750, 5749, 5749, 5749, 1, 5750, 5750],
     [5749, 5749, 5749, 1, 5752, 5753, 5754, 5755],
     [5747, 5749, 5749, 1, 5756, 5758, 5757, 5759],
     [1, 5760, 5761, 1, 5762, 5763, 1, 5764],
     [1, 5765, 5766, 5767, 1, 5768, 5769, 5770],
     [5771, 5772, 5768, 5768, 5770, 5771, 5772, 5768],
     [5768, 5768, 5768, 5768, 1, 5773, 5774, 5775],
     [5776, 5777, 5778, 5773, 5773, 5773, 5773, 5773],
     [5773, 5773, 1, 5779, 5779, 5779, 1, 5773],
     [5773, 5773, 1, 5780, 5781, 5775, 5782, 5777],
     [5778, 5780, 5780, 5780, 5780, 5780, 5780, 5780],
     [1, 5783, 5784, 5785, 5786, 5787, 5783, 5783],
     [5783, 5783, 5783, 5783, 5783, 1, 5788, 5788]]"

definition smp_indicies_34 :: "int list list" where
  "smp_indicies_34 =
    [[5788, 1, 5783, 5783, 5783, 1, 5789, 5790],
     [5789, 5791, 5792, 1, 5793, 5794, 5793, 5795],
     [5796, 1, 5797, 1, 5798, 5798, 1, 5798],
     [5798, 5795, 5796, 1, 5795, 5799, 5795, 5800],
     [5801, 5800, 5800, 5802, 5803, 5803, 5800, 5800],
     [5800, 5800, 5800, 5800, 1, 5804, 1, 5805],
     [5805, 1, 5805, 5806, 5805, 5800, 5801, 5800],
     [5800, 5802, 5803, 5803, 5800, 5800, 5800, 5800],
     [5800, 5800, 1, 5807, 5808, 5807, 5809, 5809],
     [5809, 5714, 5809, 5809, 5809, 5809, 5809, 5809],
     [1, 5810, 5811, 5810, 5809, 5809, 5809, 5717],
     [5809, 5809, 5809, 5809, 5809, 5809, 1, 5812],
     [1, 5813, 5813, 1, 5813, 5813, 5809, 5809],
     [5809, 5717, 5809, 5809, 5809, 5809, 5809, 5809],
     [1, 5807, 5808, 5807, 5809, 5809, 5809, 5714],
     [5814, 5814, 5809, 5809, 5809, 5809, 5809, 5809],
     [1, 5807, 5808, 5807, 5809, 5809, 5809, 5714],
     [5815, 5815, 5809, 5809, 5809, 5809, 5809, 5809],
     [1, 5807, 5808, 5807, 5809, 5809, 5809, 5816],
     [5714, 5817, 5817, 5809, 5809, 5809, 5809, 5809],
     [5809, 1, 5818, 5819, 5820, 5821, 5822, 5818],
     [5825, 5818, 5818, 5818, 5818, 5823, 5824, 5824],
     [1, 5826, 5827, 5828, 5826, 5829, 5826, 5826],
     [5826, 5826, 5826, 5826, 1, 5830, 5830, 5830],
     [1, 5826, 5826, 5826, 1, 5828, 5831, 5828],
     [5829, 5828, 5828, 5828, 5828, 5828, 5828, 5828],
     [1, 5832, 5832, 5832, 1, 5828, 5828, 5828],
     [1, 5833, 5834, 5835, 5825, 5836, 5837, 5837],
     [1, 5838, 5839, 5838, 5840, 5840, 5840, 1],
     [5838, 5838, 5840, 5840, 5840, 1, 5838, 5841],
     [5838, 5840, 5840, 5840, 1, 5840, 5842, 5842],
     [1, 5843, 5844, 5843, 5845, 5846, 5847, 5848],
     [5849, 5846, 5842, 5842, 5842, 1, 5850, 1],
     [5798, 46, 5798, 47, 47, 47, 48, 49],
     [50, 51, 52, 53, 54, 55, 56, 57],
     [58, 48, 49, 50, 51, 52, 53, 54],
     [55, 56, 57, 58, 47, 47, 47, 47],
     [47, 47, 1, 5846, 5846, 5842, 5842, 5842],
     [1, 5843, 5844, 5843, 5845, 5848, 5849, 5840],
     [5842, 5842, 1, 5851, 5853, 5852, 5854, 1],
     [5855, 5856, 1, 5857, 5858, 1, 5859, 1],
     [5860, 5861, 5860, 5862, 5863, 1, 5796, 5864],
     [5796, 5865, 5865, 5865, 5866, 5866, 5865, 5865],
     [5865, 5865, 5865, 5865, 1, 5867, 1, 5868],
     [5868, 1, 5868, 5868, 5865, 5865, 5865, 5866],
     [5866, 5865, 5865, 5865, 5865, 5865, 5865, 1],
     [5869, 5870, 5869, 5865, 5865, 5865, 5871, 5796],
     [5872, 5865, 5865, 5865, 5865, 5865, 1, 5873],
     [5874, 5873, 5795, 5796, 5872, 1, 5875, 1],
     [5876, 5876, 1, 5876, 5876, 5795, 5796, 5872],
     [1, 5872, 5877, 5872, 5878, 5879, 5878, 5878],
     [5880, 5878, 5878, 5878, 5878, 5878, 5878, 1],
     [5881, 1, 5882, 5882, 1, 5882, 5882, 5878],
     [5879, 5878, 5878, 5880, 5878, 5878, 5878, 5878],
     [5878, 5878, 1, 5883, 5884, 5883, 5878, 5878],
     [5878, 5871, 5796, 5878, 5878, 5878, 5878, 5878],
     [1, 5879, 5890, 5891, 5892, 5885, 5886, 5887],
     [5888, 5889, 5879, 1, 5879, 1, 5885, 1],
     [5886, 1, 5887, 1, 5888, 1, 5893, 1],
     [5879, 5879, 1, 5883, 5884, 5883, 5871, 5796],
     [1, 5879, 5879, 5879, 1, 5895, 5894, 5894],
     [5894, 1, 5897, 5896, 5896, 5896, 1, 5897],
     [5898, 5898, 5898, 1, 5897, 5899, 5899, 5899],
     [1, 5897, 1, 5901, 5900, 5900, 5900, 1],
     [5903, 5902, 5902, 5902, 1, 5903, 5904, 5904],
     [5904, 1, 5903, 5905, 5905, 5905, 1, 5903],
     [1, 5907, 5906, 5906, 5906, 1, 5909, 5908],
     [5908, 5908, 1, 5909, 5910, 5910, 5910, 1],
     [5909, 5911, 5911, 5911, 1, 5909, 1, 5913],
     [5912, 5912, 5912, 1, 5915, 5914, 5914, 5914],
     [1, 5915, 5916, 5916, 5916, 1, 5915, 5917],
     [5917, 5917, 1, 5915, 1, 5919, 5918, 5918],
     [5918, 1, 5921, 5920, 5920, 5920, 1, 5921],
     [5922, 5922, 5922, 1, 5921, 5923, 5923, 5923],
     [1, 5921, 1, 5925, 5924, 5924, 5924, 1],
     [5927, 5926, 5926, 5926, 1, 5927, 5928, 5928],
     [5928, 1, 5927, 5929, 5929, 5929, 1, 5927],
     [1, 5930, 5931, 5932, 5934, 5933, 5935, 5935],
     [1, 5936, 5938, 5937, 5937, 5937, 1, 5939],
     [5940, 5941, 5942, 1, 5943, 1, 5944, 5945],
     [5946, 5947, 1, 5948, 1, 5949, 5950, 5951],
     [5952, 1, 5891, 1, 5891, 5952, 1, 5891],
     [5949, 1, 5953, 5891, 5952, 5949, 1, 5891],
     [5949, 1, 5948, 5947, 1, 5948, 5944, 1],
     [5948, 5954, 5947, 5944, 1, 5948, 5944, 1],
     [5943, 5942, 1, 5943, 5939, 1, 5943, 5955],
     [5942, 5939, 1, 5943, 5939, 1, 5938, 5956],
     [5956, 5956, 1, 5938, 5957, 5957, 5957, 1],
     [5938, 1, 5949, 5958, 5958, 5958, 1, 5891],
     [5959, 5959, 5959, 1, 5891, 5960, 5960, 5960],
     [1, 5891, 5949, 5949, 5949, 1, 5936, 5938],
     [5961, 5937, 5937, 1, 5936, 5938, 5962, 5956],
     [5956, 1, 5936, 5938, 5957, 5957, 5957, 1],
     [5936, 5963, 5938, 5961, 5964, 5937, 5937, 1],
     [5936, 5938, 5962, 5956, 5956, 5956, 1, 5936],
     [5938, 5956, 5956, 5956, 1, 5936, 5938, 5964],
     [5937, 5937, 1, 5891, 5958, 5958, 5958, 1],
     [5938, 5937, 5937, 5937, 1, 5965, 5966, 5967],
     [5891, 5968, 5969, 5969, 1, 5936, 5971, 5891],
     [5970, 5970, 5970, 1, 5971, 5891, 5972, 5972],
     [5972, 1, 5971, 5891, 5973, 5973, 5973, 1],
     [5971, 5891, 1, 5958, 5958, 5958, 1, 5936],
     [5971, 5891, 5974, 5970, 5970, 1, 5936, 5971],
     [5891, 5975, 5972, 5972, 1, 5936, 5971, 5891],
     [5973, 5973, 5973, 1, 5936, 5976, 5971, 5891],
     [5974, 5977, 5970, 5970, 1, 5936, 5971, 5891],
     [5975, 5972, 5972, 5972, 1, 5936, 5971, 5891],
     [5972, 5972, 5972, 1, 5936, 5971, 5891, 5977],
     [5970, 5970, 1, 5971, 5891, 5970, 5970, 5970],
     [1, 5978, 5979, 5980, 5891, 5981, 5982, 5982],
     [1, 5936, 5984, 5891, 5983, 5983, 5983, 1],
     [5984, 5891, 5985, 5985, 5985, 1, 5984, 5891],
     [5986, 5986, 5986, 1, 5984, 5891, 1, 5965],
     [5966, 5967, 5968, 5969, 5969, 1, 5936, 5984],
     [5891, 5987, 5983, 5983, 1, 5936, 5984, 5891],
     [5988, 5985, 5985, 1, 5936, 5984, 5891, 5986],
     [5986, 5986, 1, 5936, 5989, 5984, 5891, 5987],
     [5990, 5983, 5983, 1, 5936, 5984, 5891, 5988],
     [5985, 5985, 5985, 1, 5936, 5984, 5891, 5985],
     [5985, 5985, 1, 5936, 5984, 5891, 5990, 5983],
     [5983, 1, 5984, 5891, 5983, 5983, 5983, 1],
     [5991, 5992, 5993, 5891, 5994, 5995, 5995, 1],
     [5936, 5997, 5891, 5996, 5996, 5996, 1, 5997],
     [5891, 5998, 5998, 5998, 1, 5997, 5891, 5999],
     [5999, 5999, 1, 5997, 5891, 1, 5978, 5979],
     [5980, 5981, 5982, 5982, 1, 5936, 5997, 5891],
     [6000, 5996, 5996, 1, 5936, 5997, 5891, 6001],
     [5998, 5998, 1, 5936, 5997, 5891, 5999, 5999],
     [5999, 1, 5936, 6002, 5997, 5891, 6000, 6003],
     [5996, 5996, 1, 5936, 5997, 5891, 6001, 5998],
     [5998, 5998, 1, 5936, 5997, 5891, 5998, 5998],
     [5998, 1, 5936, 5997, 5891, 6003, 5996, 5996],
     [1, 5997, 5891, 5996, 5996, 5996, 1, 6004],
     [6005, 6006, 5891, 6007, 6008, 6008, 1, 5936],
     [6010, 5891, 6009, 6009, 6009, 1, 6010, 5891],
     [6011, 6011, 6011, 1, 6010, 5891, 6012, 6012],
     [6012, 1, 6010, 5891, 1, 5991, 5992, 5993],
     [5994, 5995, 5995, 1, 5936, 6010, 5891, 6013],
     [6009, 6009, 1, 5936, 6010, 5891, 6014, 6011],
     [6011, 1, 5936, 6010, 5891, 6012, 6012, 6012],
     [1, 5936, 6015, 6010, 5891, 6013, 6016, 6009],
     [6009, 1, 5936, 6010, 5891, 6014, 6011, 6011],
     [6011, 1, 5936, 6010, 5891, 6011, 6011, 6011],
     [1, 5936, 6010, 5891, 6016, 6009, 6009, 1],
     [6010, 5891, 6009, 6009, 6009, 1, 6017, 6018],
     [6019, 5891, 6020, 6021, 6021, 1, 5936, 6023],
     [5891, 6022, 6022, 6022, 1, 6023, 5891, 6024],
     [6024, 6024, 1, 6023, 5891, 6025, 6025, 6025],
     [1, 6023, 5891, 1, 6004, 6005, 6006, 6007],
     [6008, 6008, 1, 5936, 6023, 5891, 6026, 6022]]"

definition smp_indicies_35 :: "int list list" where
  "smp_indicies_35 =
    [[6022, 1, 5936, 6023, 5891, 6027, 6024, 6024],
     [1, 5936, 6023, 5891, 6025, 6025, 6025, 1],
     [5936, 6028, 6023, 5891, 6026, 6029, 6022, 6022],
     [1, 5936, 6023, 5891, 6027, 6024, 6024, 6024],
     [1, 5936, 6023, 5891, 6024, 6024, 6024, 1],
     [5936, 6023, 5891, 6029, 6022, 6022, 1, 6023],
     [5891, 6022, 6022, 6022, 1, 6030, 1, 6031],
     [6032, 6033, 5891, 6034, 6035, 6035, 1, 5936],
     [6037, 5891, 6036, 6036, 6036, 1, 6037, 5891],
     [6038, 6038, 6038, 1, 6037, 5891, 6039, 6039],
     [6039, 1, 6037, 5891, 1, 6017, 6018, 6019],
     [6020, 6021, 6021, 1, 5936, 6037, 5891, 6040],
     [6036, 6036, 1, 5936, 6037, 5891, 6041, 6038],
     [6038, 1, 5936, 6037, 5891, 6039, 6039, 6039],
     [1, 5936, 6042, 6037, 5891, 6040, 6043, 6036],
     [6036, 1, 5936, 6037, 5891, 6041, 6038, 6038],
     [6038, 1, 5936, 6037, 5891, 6038, 6038, 6038],
     [1, 5936, 6037, 5891, 6043, 6036, 6036, 1],
     [6037, 5891, 6036, 6036, 6036, 1, 6044, 1],
     [5876, 46, 5876, 47, 47, 47, 48, 49],
     [50, 51, 52, 53, 54, 55, 56, 57],
     [58, 48, 49, 50, 51, 52, 53, 54],
     [55, 56, 57, 58, 47, 47, 47, 47],
     [47, 47, 1, 5869, 5870, 5869, 5865, 5865],
     [5865, 5871, 5796, 5872, 6045, 6045, 5865, 5865],
     [5865, 5865, 5865, 1, 5869, 5870, 5869, 5865],
     [5865, 5865, 5871, 5796, 5872, 6046, 6046, 5865],
     [5865, 5865, 5865, 5865, 1, 5869, 5870, 5869],
     [5865, 5865, 5865, 5871, 6047, 5796, 5872, 5865],
     [5865, 5865, 5865, 5865, 1, 5869, 5870, 5869],
     [5865, 5865, 5865, 5871, 5796, 5872, 6048, 6048],
     [5865, 5865, 5865, 5865, 5865, 1, 5869, 5870],
     [5869, 5865, 5865, 5865, 5871, 5796, 5872, 6049],
     [6049, 5865, 5865, 5865, 5865, 5865, 1, 6050],
     [6051, 6050, 5865, 5865, 5865, 6052, 6053, 6054],
     [5865, 5865, 5865, 5865, 5865, 1, 5860, 5861],
     [5860, 5862, 5863, 5859, 1, 5860, 5861, 5860],
     [5862, 5863, 5858, 1, 5860, 5861, 5860, 5862],
     [5863, 6055, 1, 5860, 5861, 5860, 5862, 5863],
     [5856, 1, 5860, 5861, 5860, 5862, 6056, 5863],
     [6055, 5856, 1, 5860, 5861, 5860, 5862, 6057],
     [5863, 5856, 5858, 1, 5860, 5861, 5860, 5862],
     [6058, 5863, 5858, 5859, 1, 5860, 5861, 5860],
     [5862, 5863, 5859, 1, 6059, 6060, 6061, 6062],
     [5842, 5842, 1, 5838, 6063, 5838, 5840, 5840],
     [5840, 1, 6064, 6065, 6066, 6067, 5842, 5842],
     [1, 5838, 6068, 5838, 5840, 5840, 5840, 1],
     [6069, 6070, 6071, 6072, 5842, 5842, 1, 6073],
     [6074, 6073, 6075, 5838, 5841, 6076, 6077, 5838],
     [5840, 5840, 5840, 1, 6073, 6074, 6073, 6075],
     [5838, 5841, 6076, 6077, 5838, 6072, 5840, 5840],
     [1, 6073, 6074, 6073, 6075, 5838, 5841, 6076],
     [6077, 5838, 6069, 5840, 5840, 1, 6073, 6074],
     [6073, 6075, 5838, 5841, 6078, 6076, 6077, 5838],
     [6072, 6069, 5840, 5840, 1, 6073, 6074, 6073],
     [6075, 5838, 5841, 6076, 6077, 5838, 6069, 5840],
     [5840, 5840, 1, 5838, 6068, 5838, 6067, 5840],
     [5840, 1, 5838, 6068, 5838, 6064, 5840, 5840],
     [1, 5838, 6068, 6079, 5838, 6067, 6064, 5840],
     [5840, 1, 5838, 6068, 5838, 6064, 5840, 5840],
     [5840, 1, 5838, 6063, 5838, 6062, 5840, 5840],
     [1, 5838, 6063, 5838, 6059, 5840, 5840, 1],
     [5838, 6063, 6080, 5838, 6062, 6059, 5840, 5840],
     [1, 5838, 6063, 5838, 6059, 5840, 5840, 5840],
     [1, 5838, 5839, 5838, 6081, 5840, 5840, 1],
     [5838, 5839, 5838, 6082, 5840, 5840, 1, 5838],
     [5839, 6083, 5838, 6081, 6082, 5840, 5840, 1],
     [5838, 5839, 5838, 6082, 5840, 5840, 5840, 1],
     [6085, 6084, 6084, 6084, 1, 6087, 6086, 6086],
     [6086, 1, 6087, 6088, 6088, 6088, 1, 6087],
     [6089, 6089, 6089, 1, 6087, 1, 6091, 6090],
     [6090, 6090, 1, 6093, 6092, 6092, 6092, 1],
     [6093, 6094, 6094, 6094, 1, 6093, 6095, 6095],
     [6095, 1, 6093, 1, 6097, 6096, 6096, 6096],
     [1, 6099, 6098, 6098, 6098, 1, 6099, 6100],
     [6100, 6100, 1, 6099, 6101, 6101, 6101, 1],
     [6099, 1, 6103, 6102, 6102, 6102, 1, 6105],
     [6104, 6104, 6104, 1, 6105, 6106, 6106, 6106],
     [1, 6105, 6107, 6107, 6107, 1, 6105, 1],
     [6109, 6108, 6108, 6108, 1, 6111, 6110, 6110],
     [6110, 1, 6111, 6112, 6112, 6112, 1, 6111],
     [6113, 6113, 6113, 1, 6111, 1, 6115, 6114],
     [6114, 6114, 1, 6117, 6116, 6116, 6116, 1],
     [6117, 6118, 6118, 6118, 1, 6117, 6119, 6119],
     [6119, 1, 6117, 1, 6120, 6121, 6122, 6124],
     [6123, 6125, 6125, 1, 6126, 6128, 6127, 6127],
     [6127, 1, 6129, 6130, 6131, 6132, 1, 6133],
     [1, 6134, 6135, 6136, 6137, 1, 6138, 1],
     [6139, 6140, 6141, 6142, 1, 6143, 1, 6144],
     [6145, 6144, 6146, 6147, 6148, 1, 6143, 6142],
     [1, 6143, 6139, 1, 6149, 6143, 6142, 6139],
     [1, 6143, 6139, 1, 6138, 6137, 1, 6138],
     [6134, 1, 6138, 6150, 6137, 6134, 1, 6138],
     [6134, 1, 6133, 6132, 1, 6133, 6129, 1],
     [6133, 6151, 6132, 6129, 1, 6133, 6129, 1],
     [6128, 6152, 6152, 6152, 1, 6128, 6153, 6153],
     [6153, 1, 6128, 1, 6139, 6154, 6154, 6154],
     [1, 6143, 6155, 6155, 6155, 1, 6143, 6156],
     [6156, 6156, 1, 6143, 6139, 6139, 6139, 1],
     [6126, 6128, 6157, 6127, 6127, 1, 6126, 6128],
     [6158, 6152, 6152, 1, 6126, 6128, 6153, 6153],
     [6153, 1, 6126, 6159, 6128, 6157, 6160, 6127],
     [6127, 1, 6126, 6128, 6158, 6152, 6152, 6152],
     [1, 6126, 6128, 6152, 6152, 6152, 1, 6126],
     [6128, 6160, 6127, 6127, 1, 6143, 6154, 6154],
     [6154, 1, 6128, 6127, 6127, 6127, 1, 6161],
     [6162, 6163, 6143, 6164, 6165, 6165, 1, 6126],
     [6167, 6143, 6166, 6166, 6166, 1, 6167, 6143],
     [6168, 6168, 6168, 1, 6167, 6143, 6169, 6169],
     [6169, 1, 6167, 6143, 1, 6154, 6154, 6154],
     [1, 6126, 6167, 6143, 6170, 6166, 6166, 1],
     [6126, 6167, 6143, 6171, 6168, 6168, 1, 6126],
     [6167, 6143, 6169, 6169, 6169, 1, 6126, 6172],
     [6167, 6143, 6170, 6173, 6166, 6166, 1, 6126],
     [6167, 6143, 6171, 6168, 6168, 6168, 1, 6126],
     [6167, 6143, 6168, 6168, 6168, 1, 6126, 6167],
     [6143, 6173, 6166, 6166, 1, 6167, 6143, 6166],
     [6166, 6166, 1, 6174, 6175, 6176, 6143, 6177],
     [6178, 6178, 1, 6126, 6180, 6143, 6179, 6179],
     [6179, 1, 6180, 6143, 6181, 6181, 6181, 1],
     [6180, 6143, 6182, 6182, 6182, 1, 6180, 6143],
     [1, 6161, 6162, 6163, 6164, 6165, 6165, 1],
     [6126, 6180, 6143, 6183, 6179, 6179, 1, 6126],
     [6180, 6143, 6184, 6181, 6181, 1, 6126, 6180],
     [6143, 6182, 6182, 6182, 1, 6126, 6185, 6180],
     [6143, 6183, 6186, 6179, 6179, 1, 6126, 6180],
     [6143, 6184, 6181, 6181, 6181, 1, 6126, 6180],
     [6143, 6181, 6181, 6181, 1, 6126, 6180, 6143],
     [6186, 6179, 6179, 1, 6180, 6143, 6179, 6179],
     [6179, 1, 6187, 6188, 6189, 6143, 6190, 6191],
     [6191, 1, 6126, 6193, 6143, 6192, 6192, 6192],
     [1, 6193, 6143, 6194, 6194, 6194, 1, 6193],
     [6143, 6195, 6195, 6195, 1, 6193, 6143, 1],
     [6174, 6175, 6176, 6177, 6178, 6178, 1, 6126],
     [6193, 6143, 6196, 6192, 6192, 1, 6126, 6193],
     [6143, 6197, 6194, 6194, 1, 6126, 6193, 6143],
     [6195, 6195, 6195, 1, 6126, 6198, 6193, 6143],
     [6196, 6199, 6192, 6192, 1, 6126, 6193, 6143],
     [6197, 6194, 6194, 6194, 1, 6126, 6193, 6143],
     [6194, 6194, 6194, 1, 6126, 6193, 6143, 6199],
     [6192, 6192, 1, 6193, 6143, 6192, 6192, 6192],
     [1, 6200, 6201, 6202, 6143, 6203, 6204, 6204],
     [1, 6126, 6206, 6143, 6205, 6205, 6205, 1],
     [6206, 6143, 6207, 6207, 6207, 1, 6206, 6143],
     [6208, 6208, 6208, 1, 6206, 6143, 1, 6187],
     [6188, 6189, 6190, 6191, 6191, 1, 6126, 6206],
     [6143, 6209, 6205, 6205, 1, 6126, 6206, 6143],
     [6210, 6207, 6207, 1, 6126, 6206, 6143, 6208],
     [6208, 6208, 1, 6126, 6211, 6206, 6143, 6209],
     [6212, 6205, 6205, 1, 6126, 6206, 6143, 6210]]"

definition smp_indicies_36 :: "int list list" where
  "smp_indicies_36 =
    [[6207, 6207, 6207, 1, 6126, 6206, 6143, 6207],
     [6207, 6207, 1, 6126, 6206, 6143, 6212, 6205],
     [6205, 1, 6206, 6143, 6205, 6205, 6205, 1],
     [6213, 6214, 6215, 6143, 6216, 6217, 6217, 1],
     [6126, 6219, 6143, 6218, 6218, 6218, 1, 6219],
     [6143, 6220, 6220, 6220, 1, 6219, 6143, 6221],
     [6221, 6221, 1, 6219, 6143, 1, 6200, 6201],
     [6202, 6203, 6204, 6204, 1, 6126, 6219, 6143],
     [6222, 6218, 6218, 1, 6126, 6219, 6143, 6223],
     [6220, 6220, 1, 6126, 6219, 6143, 6221, 6221],
     [6221, 1, 6126, 6224, 6219, 6143, 6222, 6225],
     [6218, 6218, 1, 6126, 6219, 6143, 6223, 6220],
     [6220, 6220, 1, 6126, 6219, 6143, 6220, 6220],
     [6220, 1, 6126, 6219, 6143, 6225, 6218, 6218],
     [1, 6219, 6143, 6218, 6218, 6218, 1, 6226],
     [1, 6227, 6228, 6229, 6143, 6230, 6231, 6231],
     [1, 6126, 6233, 6143, 6232, 6232, 6232, 1],
     [6233, 6143, 6234, 6234, 6234, 1, 6233, 6143],
     [6235, 6235, 6235, 1, 6233, 6143, 1, 6213],
     [6214, 6215, 6216, 6217, 6217, 1, 6126, 6233],
     [6143, 6236, 6232, 6232, 1, 6126, 6233, 6143],
     [6237, 6234, 6234, 1, 6126, 6233, 6143, 6235],
     [6235, 6235, 1, 6126, 6238, 6233, 6143, 6236],
     [6239, 6232, 6232, 1, 6126, 6233, 6143, 6237],
     [6234, 6234, 6234, 1, 6126, 6233, 6143, 6234],
     [6234, 6234, 1, 6126, 6233, 6143, 6239, 6232],
     [6232, 1, 6233, 6143, 6232, 6232, 6232, 1],
     [5826, 5827, 6240, 6241, 5826, 5828, 5826, 5829],
     [6240, 5826, 5826, 6242, 6242, 6242, 1, 5826],
     [5827, 6240, 5828, 5826, 5829, 6240, 5826, 5826],
     [5826, 6242, 6242, 6242, 1, 5826, 5827, 6240],
     [6243, 5826, 5828, 5826, 5829, 6240, 5826, 5826],
     [6242, 6242, 6242, 1, 5826, 5827, 5828, 5826],
     [5829, 5826, 5826, 5826, 5826, 6242, 6244, 6244],
     [1, 5843, 5844, 5843, 5826, 5827, 5845, 6245],
     [6246, 6247, 5849, 5826, 5829, 6245, 5826, 5826],
     [6244, 6244, 6244, 1, 5826, 5827, 6245, 5828],
     [5826, 5829, 6245, 5826, 5826, 5826, 6244, 6244],
     [6244, 1, 5843, 5844, 5843, 5826, 5827, 5845],
     [6247, 5849, 5826, 5829, 5826, 5826, 5826, 6242],
     [6244, 6244, 1, 5828, 5831, 6248, 6250, 5828],
     [5829, 5828, 5828, 5828, 5828, 6249, 6251, 5828],
     [5828, 1, 5828, 5831, 6252, 5828, 5829, 5828],
     [5828, 5828, 5828, 6253, 5828, 5828, 1, 5828],
     [5831, 6254, 5828, 5829, 5828, 5828, 5828, 5828],
     [6255, 5828, 5828, 1, 5828, 5831, 5828, 5828],
     [5829, 5828, 5828, 5828, 5828, 6256, 5828, 5828],
     [1, 5860, 5861, 5860, 5828, 5831, 5862, 5863],
     [5828, 5829, 5828, 5828, 5828, 5828, 5828, 5828],
     [1, 5860, 5861, 5860, 5828, 5831, 5862, 5863],
     [5828, 5829, 5828, 5828, 5828, 6256, 5828, 5828],
     [1, 5860, 5861, 5860, 5828, 5831, 5862, 5863],
     [5828, 5829, 5828, 5828, 5828, 6255, 5828, 5828],
     [1, 5860, 5861, 5860, 5828, 5831, 5862, 5863],
     [5828, 5829, 5828, 5828, 5828, 6257, 5828, 5828],
     [1, 5860, 5861, 5860, 5828, 5831, 5862, 5863],
     [5828, 5829, 5828, 5828, 5828, 6253, 5828, 5828],
     [1, 5860, 5861, 5860, 5828, 5831, 5862, 6258],
     [5863, 5828, 5829, 5828, 5828, 5828, 6257, 6253],
     [5828, 5828, 1, 5860, 5861, 5860, 5828, 5831],
     [5862, 6259, 5863, 5828, 5829, 5828, 5828, 5828],
     [6253, 6255, 5828, 5828, 1, 5860, 5861, 5860],
     [5828, 5831, 5862, 6260, 5863, 5828, 5829, 5828],
     [5828, 5828, 6255, 6256, 5828, 5828, 1, 5860],
     [5861, 5860, 5828, 5831, 5862, 5863, 5828, 5829],
     [5828, 5828, 5828, 6256, 5828, 5828, 5828, 1],
     [5826, 5827, 6261, 6262, 6263, 5828, 5826, 5829],
     [5826, 5826, 5826, 5826, 6264, 6244, 6244, 1],
     [5826, 5827, 6240, 6265, 5826, 5828, 5826, 5829],
     [6240, 5826, 5826, 6242, 6242, 6242, 1, 5826],
     [5827, 6266, 6267, 6268, 5828, 5826, 5829, 5826],
     [5826, 5826, 5826, 6269, 6244, 6244, 1, 5826],
     [5827, 6240, 6270, 5826, 5828, 5826, 5829, 6240],
     [5826, 5826, 6242, 6242, 6242, 1, 5826, 5827],
     [6271, 6272, 6273, 5828, 5826, 5829, 5826, 5826],
     [5826, 5826, 6274, 6244, 6244, 1, 6073, 6074],
     [6073, 5826, 5827, 6075, 6240, 6243, 6275, 6077],
     [5826, 5829, 6240, 5826, 5826, 6242, 6242, 6242],
     [1, 6073, 6074, 6073, 5826, 5827, 6075, 6240],
     [6243, 6275, 6077, 5826, 5829, 6240, 5826, 5826],
     [6274, 6242, 6242, 1, 6073, 6074, 6073, 5826],
     [5827, 6075, 6240, 6243, 6275, 6077, 5826, 5829],
     [6240, 5826, 5826, 6271, 6242, 6242, 1, 6073],
     [6074, 6073, 5826, 5827, 6075, 6240, 6243, 6276],
     [6275, 6077, 5826, 5829, 6240, 5826, 5826, 6274],
     [6271, 6242, 6242, 1, 6073, 6074, 6073, 5826],
     [5827, 6075, 6240, 6243, 6275, 6077, 5826, 5829],
     [6240, 5826, 5826, 6271, 6242, 6242, 6242, 1],
     [5826, 5827, 6240, 6270, 5826, 5828, 5826, 5829],
     [6240, 5826, 5826, 6269, 6242, 6242, 1, 5826],
     [5827, 6240, 6270, 5826, 5828, 5826, 5829, 6240],
     [5826, 5826, 6266, 6242, 6242, 1, 5826, 5827],
     [6240, 6270, 5826, 6277, 5828, 5826, 5829, 6240],
     [5826, 5826, 6269, 6266, 6242, 6242, 1, 5826],
     [5827, 6240, 6270, 5826, 5828, 5826, 5829, 6240],
     [5826, 5826, 6266, 6242, 6242, 6242, 1, 5826],
     [5827, 6240, 6265, 5826, 5828, 5826, 5829, 6240],
     [5826, 5826, 6264, 6242, 6242, 1, 5826, 5827],
     [6240, 6265, 5826, 5828, 5826, 5829, 6240, 5826],
     [5826, 6261, 6242, 6242, 1, 5826, 5827, 6240],
     [6265, 5826, 6278, 5828, 5826, 5829, 6240, 5826],
     [5826, 6264, 6261, 6242, 6242, 1, 5826, 5827],
     [6240, 6265, 5826, 5828, 5826, 5829, 6240, 5826],
     [5826, 6261, 6242, 6242, 6242, 1, 5826, 5827],
     [6240, 6241, 5826, 5828, 5826, 5829, 6240, 5826],
     [5826, 6279, 6242, 6242, 1, 5826, 5827, 6240],
     [6241, 5826, 5828, 5826, 5829, 6240, 5826, 5826],
     [6280, 6242, 6242, 1, 5826, 5827, 6240, 6241],
     [5826, 6281, 5828, 5826, 5829, 6240, 5826, 5826],
     [6279, 6280, 6242, 6242, 1, 5826, 5827, 6240],
     [6241, 5826, 5828, 5826, 5829, 6240, 5826, 5826],
     [6280, 6242, 6242, 6242, 1, 5807, 5808, 5807],
     [5809, 5809, 5809, 6282, 5714, 5809, 5809, 5809],
     [5809, 5809, 5809, 1, 6283, 6283, 6284, 6283],
     [6283, 6283, 6283, 6283, 6283, 6283, 6283, 1],
     [6283, 6283, 6284, 6285, 6283, 6283, 6283, 6283],
     [6283, 6283, 6283, 6283, 1, 6286, 6286, 6286],
     [1, 6283, 6283, 6283, 1, 6285, 6287, 6288],
     [6289, 6285, 6285, 6285, 6285, 6285, 6285, 6285],
     [6285, 1, 6290, 6290, 6290, 1, 6285, 6285],
     [6285, 1, 5780, 5781, 5780, 5780, 5780, 5780],
     [5780, 5780, 5780, 1, 5773, 5774, 5775, 5776],
     [5777, 5778, 6291, 5773, 5773, 6291, 5773, 5773],
     [5773, 5773, 5773, 1, 5773, 5774, 6292, 6293],
     [6294, 6295, 5773, 5773, 5773, 5773, 5773, 5773],
     [5773, 1, 6296, 6297, 6296, 5780, 5780, 5775],
     [5782, 5777, 5778, 5780, 5780, 6298, 6296, 5780],
     [6296, 6296, 6296, 6296, 1, 6299, 6300, 6299],
     [5783, 5783, 5785, 5786, 5787, 5783, 5783, 6298],
     [6299, 5783, 6299, 6299, 6299, 6299, 1, 6298],
     [6298, 6298, 6302, 6303, 6304, 6298, 6298, 6298],
     [6301, 6301, 6298, 6298, 6301, 6298, 1, 6298],
     [6298, 6298, 6302, 6303, 6304, 6298, 6298, 6298],
     [6298, 6298, 6298, 1, 6298, 6298, 6298, 6302],
     [6303, 6304, 6298, 6298, 6298, 6299, 6299, 6298],
     [6298, 6299, 6298, 1, 5773, 5774, 5775, 5776],
     [5777, 5778, 6305, 6306, 5773, 5773, 6305, 6306],
     [5773, 5773, 5773, 5773, 5773, 1, 5773, 5774],
     [6307, 6308, 6309, 6310, 5773, 5773, 5773, 5773],
     [5773, 5773, 5773, 1, 5773, 5774, 5775, 5776],
     [5777, 5778, 6311, 5773, 5773, 6311, 5773, 5773],
     [5773, 5773, 5773, 1, 5773, 5774, 5775, 5776],
     [5777, 5778, 6312, 5773, 5773, 6312, 5773, 5773],
     [5773, 5773, 5773, 1, 5773, 5774, 5775, 6313],
     [5777, 5778, 5773, 5773, 5773, 5773, 5773, 5773],
     [5773, 1, 6314, 6315, 6314, 5780, 5780, 5775],
     [5782, 5777, 5778, 5780, 5780, 6316, 6314, 5780],
     [6314, 6314, 6314, 6314, 1, 6317, 6318, 6317],
     [5783, 5783, 6319, 6320, 6321, 5783, 5783, 6322],
     [6317, 5783, 6317, 6317, 6317, 6317, 1, 6322]]"

definition smp_indicies_37 :: "int list list" where
  "smp_indicies_37 =
    [[6322, 6322, 6324, 6325, 6326, 6322, 6322, 6322],
     [6323, 6323, 6322, 6322, 6323, 6322, 1, 6322],
     [6322, 6322, 6324, 6325, 6326, 6322, 6322, 6322],
     [6322, 6322, 6322, 1, 6322, 6322, 6322, 6324],
     [6325, 6326, 6322, 6322, 6322, 6317, 6317, 6322],
     [6322, 6317, 6322, 1, 5773, 5774, 5775, 5776],
     [5777, 5778, 6327, 5773, 5773, 6327, 5773, 5773],
     [5773, 5773, 5773, 1, 5773, 5774, 5775, 5776],
     [5777, 5778, 6328, 5773, 5773, 6328, 5773, 5773],
     [5773, 5773, 5773, 1, 5773, 5774, 5775, 5776],
     [5777, 5778, 6329, 5773, 5773, 6329, 5773, 5773],
     [5773, 5773, 5773, 1, 5773, 5774, 5775, 5776],
     [5777, 5778, 6330, 5773, 5773, 6330, 5773, 5773],
     [5773, 5773, 5773, 1, 5773, 5774, 5775, 5776],
     [5777, 5778, 6331, 5773, 5773, 6331, 5773, 5773],
     [5773, 5773, 5773, 1, 5773, 5774, 5775, 5776],
     [5777, 5778, 6332, 5773, 5773, 6332, 5773, 5773],
     [5773, 5773, 5773, 1, 5773, 5774, 5775, 5776],
     [5777, 5778, 6333, 5773, 5773, 6333, 5773, 5773],
     [5773, 5773, 5773, 1, 5773, 5774, 5775, 5776],
     [5777, 5778, 6334, 5773, 5773, 6334, 5773, 5773],
     [5773, 5773, 5773, 1, 5773, 5774, 5775, 6335],
     [5777, 5778, 5773, 5773, 5773, 5773, 5773, 5773],
     [5773, 1, 6336, 6337, 6336, 5780, 5780, 5775],
     [5782, 5777, 5778, 6338, 6339, 6340, 6341, 5780],
     [5780, 6342, 6338, 6339, 6340, 6341, 6336, 5780],
     [6336, 6336, 6336, 6336, 1, 6343, 6344, 6343],
     [5783, 5783, 6345, 6346, 6347, 5783, 5783, 6348],
     [6343, 5783, 6343, 6343, 6343, 6343, 1, 6348],
     [6348, 6348, 6350, 6351, 6352, 6348, 6348, 6348],
     [6349, 6349, 6348, 6348, 6349, 6348, 1, 6348],
     [6348, 6348, 6350, 6351, 6352, 6348, 6348, 6348],
     [6348, 6348, 6348, 1, 6348, 6348, 6348, 6350],
     [6351, 6352, 6348, 6348, 6348, 6343, 6343, 6348],
     [6348, 6343, 6348, 1, 6343, 6344, 6343, 5783],
     [5783, 6345, 6346, 6347, 6353, 5783, 5783, 6348],
     [6353, 6343, 5783, 6343, 6343, 6343, 6343, 1],
     [6343, 6344, 6343, 5783, 5783, 6345, 6346, 6347],
     [6354, 5783, 5783, 6348, 6354, 6343, 5783, 6343],
     [6343, 6343, 6343, 1, 6343, 6344, 6343, 5783],
     [5783, 6345, 6346, 6347, 6355, 5783, 5783, 6348],
     [6355, 6343, 5783, 6343, 6343, 6343, 6343, 1],
     [6343, 6344, 6343, 5783, 5783, 6356, 6357, 6358],
     [5783, 5783, 6348, 6343, 5783, 6343, 6343, 6343],
     [6343, 1, 6343, 6344, 6343, 5783, 5783, 6345],
     [6346, 6347, 6359, 6360, 5783, 5783, 6348, 6359],
     [6360, 6343, 5783, 6343, 6343, 6343, 6343, 1],
     [6343, 6344, 6343, 5783, 5783, 6345, 6346, 6347],
     [6361, 5783, 5783, 6348, 6361, 6343, 5783, 6343],
     [6343, 6343, 6343, 1, 6343, 6344, 6343, 5783],
     [5783, 6362, 6363, 6364, 5783, 5783, 6348, 6343],
     [5783, 6343, 6343, 6343, 6343, 1, 6343, 6344],
     [6343, 5783, 5783, 6345, 6346, 6347, 6365, 5783],
     [5783, 6348, 6365, 6343, 5783, 6343, 6343, 6343],
     [6343, 1, 6343, 6344, 6343, 5783, 5783, 6366],
     [6367, 6368, 5783, 5783, 6348, 6343, 5783, 6343],
     [6343, 6343, 6343, 1, 6343, 6344, 6343, 5783],
     [5783, 6345, 6346, 6347, 6369, 5783, 5783, 6348],
     [6369, 6343, 5783, 6343, 6343, 6343, 6343, 1],
     [6343, 6344, 6343, 5783, 5783, 6345, 6346, 6347],
     [6370, 5783, 5783, 6348, 6370, 6343, 5783, 6343],
     [6343, 6343, 6343, 1, 6343, 6344, 6343, 5783],
     [5783, 6371, 6372, 6373, 5783, 5783, 6348, 6343],
     [5783, 6343, 6343, 6343, 6343, 1, 6343, 6344],
     [6343, 5783, 5783, 6345, 6346, 6347, 6374, 5783],
     [5783, 6348, 6374, 6343, 5783, 6343, 6343, 6343],
     [6343, 1, 6343, 6344, 6343, 5783, 5783, 6375],
     [6376, 6377, 6378, 5783, 5783, 6348, 6378, 6343],
     [5783, 6343, 6343, 6343, 6343, 1, 6343, 6344],
     [6343, 5783, 5783, 6379, 6380, 6381, 5783, 5783],
     [6348, 6343, 5783, 6343, 6343, 6343, 6343, 1],
     [5765, 5766, 5767, 5764, 1, 5765, 5766, 5767],
     [5763, 1, 5765, 5766, 5767, 6382, 1, 5765],
     [5766, 5767, 5761, 1, 6383, 5765, 5766, 5767],
     [6382, 5761, 1, 6384, 5765, 5766, 5767, 5761],
     [5763, 1, 6385, 5765, 5766, 5767, 5763, 5764],
     [1, 5765, 5766, 5767, 5764, 1, 6386, 6387],
     [6388, 6389, 5749, 5749, 1, 5745, 6390, 5745],
     [5747, 5747, 5747, 1, 6391, 6392, 6393, 6394],
     [5749, 5749, 1, 5745, 6395, 5745, 5747, 5747],
     [5747, 1, 6396, 6397, 6398, 6399, 5749, 5749],
     [1, 5745, 5748, 6400, 6401, 6402, 6403, 5745],
     [5747, 5747, 5747, 1, 5745, 5748, 6400, 6401],
     [6402, 6403, 5745, 6399, 5747, 5747, 1, 5745],
     [5748, 6400, 6401, 6402, 6403, 5745, 6396, 5747],
     [5747, 1, 5745, 5748, 6404, 6400, 6401, 6402],
     [6403, 5745, 6399, 6396, 5747, 5747, 1, 5745],
     [5748, 6400, 6401, 6402, 6403, 5745, 6396, 5747],
     [5747, 5747, 1, 5745, 6395, 5745, 6394, 5747],
     [5747, 1, 5745, 6395, 5745, 6391, 5747, 5747],
     [1, 5745, 6395, 6405, 5745, 6394, 6391, 5747],
     [5747, 1, 5745, 6395, 5745, 6391, 5747, 5747],
     [5747, 1, 5745, 6390, 5745, 6389, 5747, 5747],
     [1, 5745, 6390, 5745, 6386, 5747, 5747, 1],
     [5745, 6390, 6406, 5745, 6389, 6386, 5747, 5747],
     [1, 5745, 6390, 5745, 6386, 5747, 5747, 5747],
     [1, 5745, 5746, 5745, 6407, 5747, 5747, 1],
     [5745, 5746, 5745, 6408, 5747, 5747, 1, 5745],
     [5746, 6409, 5745, 6407, 6408, 5747, 5747, 1],
     [5745, 5746, 5745, 6408, 5747, 5747, 5747, 1],
     [6411, 6410, 6410, 6410, 1, 6413, 6412, 6412],
     [6412, 1, 6413, 6414, 6414, 6414, 1, 6413],
     [6415, 6415, 6415, 1, 6413, 1, 6417, 6416],
     [6416, 6416, 1, 6419, 6418, 6418, 6418, 1],
     [6419, 6420, 6420, 6420, 1, 6419, 6421, 6421],
     [6421, 1, 6419, 1, 6423, 6422, 6422, 6422],
     [1, 6425, 6424, 6424, 6424, 1, 6425, 6426],
     [6426, 6426, 1, 6425, 6427, 6427, 6427, 1],
     [6425, 1, 6429, 6428, 6428, 6428, 1, 6431],
     [6430, 6430, 6430, 1, 6431, 6432, 6432, 6432],
     [1, 6431, 6433, 6433, 6433, 1, 6431, 1],
     [6435, 6434, 6434, 6434, 1, 6437, 6436, 6436],
     [6436, 1, 6437, 6438, 6438, 6438, 1, 6437],
     [6439, 6439, 6439, 1, 6437, 1, 6441, 6440],
     [6440, 6440, 1, 6443, 6442, 6442, 6442, 1],
     [6443, 6444, 6444, 6444, 1, 6443, 6445, 6445],
     [6445, 1, 6443, 1, 6446, 6447, 6448, 6450],
     [6449, 6451, 6451, 1, 6452, 6454, 6453, 6453],
     [6453, 1, 6455, 6456, 6457, 6458, 1, 6459],
     [1, 6460, 6461, 6462, 6463, 1, 6464, 1],
     [6465, 6466, 6467, 6468, 1, 6469, 1, 6470],
     [6471, 6472, 6473, 1, 6469, 6468, 1, 6469],
     [6465, 1, 6474, 6469, 6468, 6465, 1, 6469],
     [6465, 1, 6464, 6463, 1, 6464, 6460, 1],
     [6464, 6475, 6463, 6460, 1, 6464, 6460, 1],
     [6459, 6458, 1, 6459, 6455, 1, 6459, 6476],
     [6458, 6455, 1, 6459, 6455, 1, 6454, 6477],
     [6477, 6477, 1, 6454, 6478, 6478, 6478, 1],
     [6454, 1, 6465, 6479, 6479, 6479, 1, 6469],
     [6480, 6480, 6480, 1, 6469, 6481, 6481, 6481],
     [1, 6469, 6465, 6465, 6465, 1, 6452, 6454],
     [6482, 6453, 6453, 1, 6452, 6454, 6483, 6477],
     [6477, 1, 6452, 6454, 6478, 6478, 6478, 1],
     [6452, 6484, 6454, 6482, 6485, 6453, 6453, 1],
     [6452, 6454, 6483, 6477, 6477, 6477, 1, 6452],
     [6454, 6477, 6477, 6477, 1, 6452, 6454, 6485],
     [6453, 6453, 1, 6469, 6479, 6479, 6479, 1],
     [6454, 6453, 6453, 6453, 1, 6486, 6487, 6488],
     [6469, 6489, 6490, 6490, 1, 6452, 6492, 6469],
     [6491, 6491, 6491, 1, 6492, 6469, 6493, 6493],
     [6493, 1, 6492, 6469, 6494, 6494, 6494, 1],
     [6492, 6469, 1, 6479, 6479, 6479, 1, 6452],
     [6492, 6469, 6495, 6491, 6491, 1, 6452, 6492],
     [6469, 6496, 6493, 6493, 1, 6452, 6492, 6469],
     [6494, 6494, 6494, 1, 6452, 6497, 6492, 6469],
     [6495, 6498, 6491, 6491, 1, 6452, 6492, 6469],
     [6496, 6493, 6493, 6493, 1, 6452, 6492, 6469],
     [6493, 6493, 6493, 1, 6452, 6492, 6469, 6498],
     [6491, 6491, 1, 6492, 6469, 6491, 6491, 6491],
     [1, 6499, 6500, 6501, 6469, 6502, 6503, 6503]]"

definition smp_indicies_38 :: "int list list" where
  "smp_indicies_38 =
    [[1, 6452, 6505, 6469, 6504, 6504, 6504, 1],
     [6505, 6469, 6506, 6506, 6506, 1, 6505, 6469],
     [6507, 6507, 6507, 1, 6505, 6469, 1, 6486],
     [6487, 6488, 6489, 6490, 6490, 1, 6452, 6505],
     [6469, 6508, 6504, 6504, 1, 6452, 6505, 6469],
     [6509, 6506, 6506, 1, 6452, 6505, 6469, 6507],
     [6507, 6507, 1, 6452, 6510, 6505, 6469, 6508],
     [6511, 6504, 6504, 1, 6452, 6505, 6469, 6509],
     [6506, 6506, 6506, 1, 6452, 6505, 6469, 6506],
     [6506, 6506, 1, 6452, 6505, 6469, 6511, 6504],
     [6504, 1, 6505, 6469, 6504, 6504, 6504, 1],
     [6512, 6513, 6514, 6469, 6515, 6516, 6516, 1],
     [6452, 6518, 6469, 6517, 6517, 6517, 1, 6518],
     [6469, 6519, 6519, 6519, 1, 6518, 6469, 6520],
     [6520, 6520, 1, 6518, 6469, 1, 6499, 6500],
     [6501, 6502, 6503, 6503, 1, 6452, 6518, 6469],
     [6521, 6517, 6517, 1, 6452, 6518, 6469, 6522],
     [6519, 6519, 1, 6452, 6518, 6469, 6520, 6520],
     [6520, 1, 6452, 6523, 6518, 6469, 6521, 6524],
     [6517, 6517, 1, 6452, 6518, 6469, 6522, 6519],
     [6519, 6519, 1, 6452, 6518, 6469, 6519, 6519],
     [6519, 1, 6452, 6518, 6469, 6524, 6517, 6517],
     [1, 6518, 6469, 6517, 6517, 6517, 1, 6525],
     [6526, 6527, 6469, 6528, 6529, 6529, 1, 6452],
     [6531, 6469, 6530, 6530, 6530, 1, 6531, 6469],
     [6532, 6532, 6532, 1, 6531, 6469, 6533, 6533],
     [6533, 1, 6531, 6469, 1, 6512, 6513, 6514],
     [6515, 6516, 6516, 1, 6452, 6531, 6469, 6534],
     [6530, 6530, 1, 6452, 6531, 6469, 6535, 6532],
     [6532, 1, 6452, 6531, 6469, 6533, 6533, 6533],
     [1, 6452, 6536, 6531, 6469, 6534, 6537, 6530],
     [6530, 1, 6452, 6531, 6469, 6535, 6532, 6532],
     [6532, 1, 6452, 6531, 6469, 6532, 6532, 6532],
     [1, 6452, 6531, 6469, 6537, 6530, 6530, 1],
     [6531, 6469, 6530, 6530, 6530, 1, 6538, 6539],
     [6540, 6469, 6541, 6542, 6542, 1, 6452, 6544],
     [6469, 6543, 6543, 6543, 1, 6544, 6469, 6545],
     [6545, 6545, 1, 6544, 6469, 6546, 6546, 6546],
     [1, 6544, 6469, 1, 6525, 6526, 6527, 6528],
     [6529, 6529, 1, 6452, 6544, 6469, 6547, 6543],
     [6543, 1, 6452, 6544, 6469, 6548, 6545, 6545],
     [1, 6452, 6544, 6469, 6546, 6546, 6546, 1],
     [6452, 6549, 6544, 6469, 6547, 6550, 6543, 6543],
     [1, 6452, 6544, 6469, 6548, 6545, 6545, 6545],
     [1, 6452, 6544, 6469, 6545, 6545, 6545, 1],
     [6452, 6544, 6469, 6550, 6543, 6543, 1, 6544],
     [6469, 6543, 6543, 6543, 1, 6551, 1, 6552],
     [6553, 6554, 6469, 6555, 6556, 6556, 1, 6452],
     [6558, 6469, 6557, 6557, 6557, 1, 6558, 6469],
     [6559, 6559, 6559, 1, 6558, 6469, 6560, 6560],
     [6560, 1, 6558, 6469, 1, 6538, 6539, 6540],
     [6541, 6542, 6542, 1, 6452, 6558, 6469, 6561],
     [6557, 6557, 1, 6452, 6558, 6469, 6562, 6559],
     [6559, 1, 6452, 6558, 6469, 6560, 6560, 6560],
     [1, 6452, 6563, 6558, 6469, 6561, 6564, 6557],
     [6557, 1, 6452, 6558, 6469, 6562, 6559, 6559],
     [6559, 1, 6452, 6558, 6469, 6559, 6559, 6559],
     [1, 6452, 6558, 6469, 6564, 6557, 6557, 1],
     [6558, 6469, 6557, 6557, 6557, 1, 5733, 5734],
     [6565, 6566, 5735, 5733, 5733, 5733, 5736, 6565],
     [5733, 5733, 6567, 6567, 6567, 1, 5733, 5734],
     [6565, 5735, 5733, 5733, 5733, 5736, 6565, 5733],
     [5733, 6567, 6567, 6567, 1, 5733, 5734, 6565],
     [6568, 5735, 5733, 5733, 5733, 5736, 6565, 5733],
     [5733, 6567, 6567, 6567, 1, 5733, 5734, 5735],
     [5733, 5733, 5733, 5736, 5733, 5733, 5733, 6567],
     [6569, 6569, 1, 5733, 5734, 6570, 6571, 6572],
     [6573, 5733, 5754, 6574, 5736, 6570, 5733, 5733],
     [6569, 6569, 6569, 1, 5733, 5734, 6570, 5735],
     [5733, 5733, 5733, 5736, 6570, 5733, 5733, 6569],
     [6569, 6569, 1, 5733, 5734, 6572, 6573, 5733],
     [5754, 6574, 5736, 5733, 5733, 5733, 6567, 6569],
     [6569, 1, 5735, 5738, 6575, 6577, 5735, 5736],
     [5735, 5735, 5735, 6576, 6578, 5735, 5735, 1],
     [5735, 5738, 6579, 5735, 5736, 5735, 5735, 5735],
     [6580, 5735, 5735, 1, 5735, 5738, 6581, 5735],
     [5736, 5735, 5735, 5735, 6582, 5735, 5735, 1],
     [5735, 5738, 5735, 5735, 5736, 5735, 5735, 5735],
     [6583, 5735, 5735, 1, 5735, 5738, 5765, 5766],
     [5767, 5736, 5735, 5735, 5735, 5735, 5735, 5735],
     [1, 5735, 5738, 5765, 5766, 5767, 5736, 5735],
     [5735, 5735, 6583, 5735, 5735, 1, 5735, 5738],
     [5765, 5766, 5767, 5736, 5735, 5735, 5735, 6582],
     [5735, 5735, 1, 5735, 5738, 5765, 5766, 5767],
     [5736, 5735, 5735, 5735, 6584, 5735, 5735, 1],
     [5735, 5738, 5765, 5766, 5767, 5736, 5735, 5735],
     [5735, 6580, 5735, 5735, 1, 5735, 5738, 6585],
     [5765, 5766, 5767, 5736, 5735, 5735, 5735, 6584],
     [6580, 5735, 5735, 1, 5735, 5738, 6586, 5765],
     [5766, 5767, 5736, 5735, 5735, 5735, 6580, 6582],
     [5735, 5735, 1, 5735, 5738, 6587, 5765, 5766],
     [5767, 5736, 5735, 5735, 5735, 6582, 6583, 5735],
     [5735, 1, 5735, 5738, 5765, 5766, 5767, 5736],
     [5735, 5735, 5735, 6583, 5735, 5735, 5735, 1],
     [6588, 5733, 6589, 5733, 6590, 5733, 5733, 5733],
     [5736, 6591, 6592, 6593, 5768, 5768, 6588, 6591],
     [6592, 6593, 6588, 6588, 6588, 6588, 1, 6594],
     [5733, 6595, 5733, 6596, 6597, 6598, 5777, 6599],
     [5736, 5773, 5773, 6594, 6594, 6594, 6594, 6594],
     [1, 6600, 6600, 6600, 1, 6594, 6594, 6594],
     [1, 6596, 6601, 5735, 5773, 5773, 5775, 6602],
     [5777, 5778, 5736, 5773, 5773, 6596, 6596, 6596],
     [6596, 6596, 1, 6603, 6603, 6603, 1, 6596],
     [6596, 6596, 1, 6604, 6605, 5735, 5780, 5780],
     [5775, 6606, 5777, 5778, 5736, 5780, 5780, 6604],
     [6604, 6604, 6604, 6604, 1, 6607, 6608, 5735],
     [5783, 5783, 5785, 5735, 5786, 5787, 5736, 5783],
     [5783, 6607, 6607, 6607, 6607, 6607, 1, 6609],
     [6609, 6609, 1, 6607, 6607, 6607, 1, 6604],
     [6605, 5735, 5780, 5780, 5735, 5736, 5780, 5780],
     [6604, 6604, 6604, 6604, 6604, 1, 6610, 5733],
     [6611, 5733, 6604, 6597, 6612, 5777, 6599, 5736],
     [5780, 5780, 6610, 6610, 6610, 6610, 6610, 1],
     [6613, 5733, 6614, 5733, 6607, 6615, 5733, 5786],
     [6616, 5736, 5783, 5783, 6613, 6613, 6613, 6613],
     [6613, 1, 6617, 6617, 6617, 1, 6613, 6613],
     [6613, 1, 6618, 6618, 6619, 5733, 6620, 5733],
     [5733, 5736, 6283, 6283, 6618, 6618, 5733, 6618],
     [6618, 6618, 1, 6618, 6618, 6619, 5733, 6620],
     [5733, 6621, 5736, 6283, 6283, 6618, 6618, 5733],
     [6618, 6618, 6618, 1, 6622, 6622, 6622, 1],
     [6618, 6618, 6618, 1, 6620, 6623, 5735, 5735],
     [6283, 6283, 6624, 6283, 5736, 6283, 6283, 6620],
     [6620, 6620, 6620, 6620, 1, 6625, 6625, 6625],
     [1, 6620, 6620, 6620, 1, 6624, 6626, 6627],
     [5735, 6285, 6285, 5735, 6289, 6285, 5736, 6285],
     [6285, 6624, 6624, 6624, 6624, 6624, 1, 6628],
     [6628, 6628, 1, 6624, 6624, 6624, 1, 6620],
     [6623, 5735, 5735, 6283, 6283, 5735, 6283, 5736],
     [6283, 6283, 6620, 6620, 6620, 6620, 6620, 1],
     [6621, 5733, 6629, 6630, 5733, 6624, 5733, 5733],
     [6289, 5736, 6285, 6285, 6621, 6621, 6621, 6621],
     [6621, 1, 6631, 6631, 6631, 1, 6621, 6621],
     [6621, 1, 6610, 5733, 6611, 5733, 6604, 5733],
     [5733, 5733, 5736, 5780, 5780, 6610, 6610, 6610],
     [6610, 6610, 1, 6594, 5733, 6595, 5733, 6596],
     [6597, 6598, 5777, 6599, 5736, 6632, 5773, 5773],
     [6594, 6632, 6594, 6594, 6594, 6594, 1, 6594],
     [5733, 6595, 5733, 6596, 6633, 6634, 6294, 6635],
     [5736, 5773, 5773, 6594, 6594, 6594, 6594, 6594],
     [1, 6636, 5733, 6637, 6636, 5733, 6610, 6604],
     [6597, 6612, 5777, 6599, 5736, 5780, 5780, 6298],
     [6636, 6610, 6636, 6636, 6636, 1, 6638, 5733],
     [6639, 6638, 5733, 6613, 6607, 6615, 5733, 5786],
     [6616, 5736, 5783, 5783, 6298, 6638, 6613, 6638],
     [6638, 6638, 1, 6298, 6298, 6298, 6302, 6303],
     [6304, 6298, 6298, 6298, 6640, 6640, 6298, 6298],
     [6640, 6298, 1, 6298, 6298, 6298, 6302, 6303],
     [6304, 6298, 6298, 6298, 6638, 6638, 6298, 6298],
     [6638, 6298, 1, 6594, 5733, 6595, 5733, 6596]]"

definition smp_indicies_39 :: "int list list" where
  "smp_indicies_39 =
    [[6597, 6598, 5777, 6599, 5736, 6641, 6642, 5773],
     [5773, 6594, 6641, 6642, 6594, 6594, 6594, 6594],
     [1, 6594, 5733, 6595, 5733, 6596, 6643, 6644],
     [6309, 6645, 5736, 5773, 5773, 6594, 6594, 6594],
     [6594, 6594, 1, 6594, 5733, 6595, 5733, 6596],
     [6597, 6598, 5777, 6599, 5736, 6646, 5773, 5773],
     [6594, 6646, 6594, 6594, 6594, 6594, 1, 6594],
     [5733, 6595, 5733, 6596, 6597, 6598, 5777, 6599],
     [5736, 6647, 5773, 5773, 6594, 6647, 6594, 6594],
     [6594, 6594, 1, 6594, 5733, 6595, 5733, 6596],
     [6597, 6648, 5777, 6599, 5736, 5773, 5773, 6594],
     [6594, 6594, 6594, 6594, 1, 6649, 5733, 6650],
     [6649, 5733, 6610, 6604, 6597, 6612, 5777, 6599],
     [5736, 5780, 5780, 6316, 6649, 6610, 6649, 6649],
     [6649, 1, 6651, 5733, 6652, 6651, 5733, 6613],
     [6607, 6653, 5733, 6320, 6654, 5736, 5783, 5783],
     [6322, 6651, 6613, 6651, 6651, 6651, 1, 6322],
     [6322, 6322, 6324, 6325, 6326, 6322, 6322, 6322],
     [6655, 6655, 6322, 6322, 6655, 6322, 1, 6322],
     [6322, 6322, 6324, 6325, 6326, 6322, 6322, 6322],
     [6651, 6651, 6322, 6322, 6651, 6322, 1, 6594],
     [5733, 6595, 5733, 6596, 6597, 6598, 5777, 6599],
     [5736, 6656, 5773, 5773, 6594, 6656, 6594, 6594],
     [6594, 6594, 1, 6594, 5733, 6595, 5733, 6596],
     [6597, 6598, 5777, 6599, 5736, 6657, 5773, 5773],
     [6594, 6657, 6594, 6594, 6594, 6594, 1, 6594],
     [5733, 6595, 5733, 6596, 6597, 6598, 5777, 6599],
     [5736, 6658, 5773, 5773, 6594, 6658, 6594, 6594],
     [6594, 6594, 1, 6594, 5733, 6595, 5733, 6596],
     [6597, 6598, 5777, 6599, 5736, 6659, 5773, 5773],
     [6594, 6659, 6594, 6594, 6594, 6594, 1, 6594],
     [5733, 6595, 5733, 6596, 6597, 6598, 5777, 6599],
     [5736, 6660, 5773, 5773, 6594, 6660, 6594, 6594],
     [6594, 6594, 1, 6594, 5733, 6595, 5733, 6596],
     [6597, 6598, 5777, 6599, 5736, 6661, 5773, 5773],
     [6594, 6661, 6594, 6594, 6594, 6594, 1, 6594],
     [5733, 6595, 5733, 6596, 6597, 6598, 5777, 6599],
     [5736, 6662, 5773, 5773, 6594, 6662, 6594, 6594],
     [6594, 6594, 1, 6594, 5733, 6595, 5733, 6596],
     [6597, 6598, 5777, 6599, 5736, 6663, 5773, 5773],
     [6594, 6663, 6594, 6594, 6594, 6594, 1, 6594],
     [5733, 6595, 5733, 6596, 6597, 6664, 5777, 6599],
     [5736, 5773, 5773, 6594, 6594, 6594, 6594, 6594],
     [1, 6665, 5733, 6666, 6665, 5733, 6610, 6604],
     [6597, 6612, 5777, 6599, 5736, 6667, 6668, 6669],
     [6670, 5780, 5780, 6342, 6667, 6668, 6669, 6670],
     [6665, 6610, 6665, 6665, 6665, 1, 6671, 5733],
     [6672, 6671, 5733, 6613, 6607, 6673, 5733, 6346],
     [6674, 5736, 5783, 5783, 6348, 6671, 6613, 6671],
     [6671, 6671, 1, 6348, 6348, 6348, 6350, 6351],
     [6352, 6348, 6348, 6348, 6675, 6675, 6348, 6348],
     [6675, 6348, 1, 6348, 6348, 6348, 6350, 6351],
     [6352, 6348, 6348, 6348, 6671, 6671, 6348, 6348],
     [6671, 6348, 1, 6671, 5733, 6672, 6671, 5733],
     [6613, 6607, 6673, 5733, 6346, 6674, 5736, 6676],
     [5783, 5783, 6348, 6676, 6671, 6613, 6671, 6671],
     [6671, 1, 6671, 5733, 6672, 6671, 5733, 6613],
     [6607, 6673, 5733, 6346, 6674, 5736, 6677, 5783],
     [5783, 6348, 6677, 6671, 6613, 6671, 6671, 6671],
     [1, 6671, 5733, 6672, 6671, 5733, 6613, 6607],
     [6673, 5733, 6346, 6674, 5736, 6678, 5783, 5783],
     [6348, 6678, 6671, 6613, 6671, 6671, 6671, 1],
     [6671, 5733, 6672, 6671, 5733, 6613, 6607, 6679],
     [5733, 6357, 6680, 5736, 5783, 5783, 6348, 6671],
     [6613, 6671, 6671, 6671, 1, 6671, 5733, 6672],
     [6671, 5733, 6613, 6607, 6673, 5733, 6346, 6674],
     [5736, 6681, 6682, 5783, 5783, 6348, 6681, 6682],
     [6671, 6613, 6671, 6671, 6671, 1, 6671, 5733],
     [6672, 6671, 5733, 6613, 6607, 6673, 5733, 6346],
     [6674, 5736, 6683, 5783, 5783, 6348, 6683, 6671],
     [6613, 6671, 6671, 6671, 1, 6671, 5733, 6672],
     [6671, 5733, 6613, 6607, 6684, 5733, 6363, 6685],
     [5736, 5783, 5783, 6348, 6671, 6613, 6671, 6671],
     [6671, 1, 6671, 5733, 6672, 6671, 5733, 6613],
     [6607, 6673, 5733, 6346, 6674, 5736, 6686, 5783],
     [5783, 6348, 6686, 6671, 6613, 6671, 6671, 6671],
     [1, 6671, 5733, 6672, 6671, 5733, 6613, 6607],
     [6687, 5733, 6367, 6688, 5736, 5783, 5783, 6348],
     [6671, 6613, 6671, 6671, 6671, 1, 6671, 5733],
     [6672, 6671, 5733, 6613, 6607, 6673, 5733, 6346],
     [6674, 5736, 6689, 5783, 5783, 6348, 6689, 6671],
     [6613, 6671, 6671, 6671, 1, 6671, 5733, 6672],
     [6671, 5733, 6613, 6607, 6673, 5733, 6346, 6674],
     [5736, 6690, 5783, 5783, 6348, 6690, 6671, 6613],
     [6671, 6671, 6671, 1, 6671, 5733, 6672, 6671],
     [5733, 6613, 6607, 6691, 5733, 6372, 6692, 5736],
     [5783, 5783, 6348, 6671, 6613, 6671, 6671, 6671],
     [1, 6671, 5733, 6672, 6671, 5733, 6613, 6607],
     [6673, 5733, 6346, 6674, 5736, 6693, 5783, 5783],
     [6348, 6693, 6671, 6613, 6671, 6671, 6671, 1],
     [6671, 5733, 6672, 6671, 5733, 6613, 6607, 6694],
     [5733, 6376, 6695, 5736, 6696, 5783, 5783, 6348],
     [6696, 6671, 6613, 6671, 6671, 6671, 1, 6671],
     [5733, 6672, 6671, 5733, 6613, 6607, 6697, 5733],
     [6380, 6698, 5736, 5783, 5783, 6348, 6671, 6613],
     [6671, 6671, 6671, 1, 5733, 5734, 6699, 6700],
     [6701, 5735, 5733, 5733, 5733, 5736, 5733, 5733],
     [5733, 6702, 6569, 6569, 1, 5733, 5734, 6565],
     [6703, 5735, 5733, 5733, 5733, 5736, 6565, 5733],
     [5733, 6567, 6567, 6567, 1, 5733, 5734, 6704],
     [6705, 6706, 5735, 5733, 5733, 5733, 5736, 5733],
     [5733, 5733, 6707, 6569, 6569, 1, 5733, 5734],
     [6565, 6708, 5735, 5733, 5733, 5733, 5736, 6565],
     [5733, 5733, 6567, 6567, 6567, 1, 5733, 5734],
     [6709, 6710, 6711, 5735, 5733, 5733, 5733, 5736],
     [5733, 5733, 5733, 6712, 6569, 6569, 1, 5733],
     [5734, 6565, 6568, 6713, 6714, 5733, 6402, 6715],
     [5736, 6565, 5733, 5733, 6567, 6567, 6567, 1],
     [5733, 5734, 6565, 6568, 6713, 6714, 5733, 6402],
     [6715, 5736, 6565, 5733, 5733, 6712, 6567, 6567],
     [1, 5733, 5734, 6565, 6568, 6713, 6714, 5733],
     [6402, 6715, 5736, 6565, 5733, 5733, 6709, 6567],
     [6567, 1, 5733, 5734, 6565, 6568, 6716, 6713],
     [6714, 5733, 6402, 6715, 5736, 6565, 5733, 5733],
     [6712, 6709, 6567, 6567, 1, 5733, 5734, 6565],
     [6568, 6713, 6714, 5733, 6402, 6715, 5736, 6565],
     [5733, 5733, 6709, 6567, 6567, 6567, 1, 5733],
     [5734, 6565, 6708, 5735, 5733, 5733, 5733, 5736],
     [6565, 5733, 5733, 6707, 6567, 6567, 1, 5733],
     [5734, 6565, 6708, 5735, 5733, 5733, 5733, 5736],
     [6565, 5733, 5733, 6704, 6567, 6567, 1, 5733],
     [5734, 6565, 6708, 6717, 5735, 5733, 5733, 5733],
     [5736, 6565, 5733, 5733, 6707, 6704, 6567, 6567],
     [1, 5733, 5734, 6565, 6708, 5735, 5733, 5733],
     [5733, 5736, 6565, 5733, 5733, 6704, 6567, 6567],
     [6567, 1, 5733, 5734, 6565, 6703, 5735, 5733],
     [5733, 5733, 5736, 6565, 5733, 5733, 6702, 6567],
     [6567, 1, 5733, 5734, 6565, 6703, 5735, 5733],
     [5733, 5733, 5736, 6565, 5733, 5733, 6699, 6567],
     [6567, 1, 5733, 5734, 6565, 6703, 6718, 5735],
     [5733, 5733, 5733, 5736, 6565, 5733, 5733, 6702],
     [6699, 6567, 6567, 1, 5733, 5734, 6565, 6703],
     [5735, 5733, 5733, 5733, 5736, 6565, 5733, 5733],
     [6699, 6567, 6567, 6567, 1, 5733, 5734, 6565],
     [6566, 5735, 5733, 5733, 5733, 5736, 6565, 5733],
     [5733, 6719, 6567, 6567, 1, 5733, 5734, 6565],
     [6566, 5735, 5733, 5733, 5733, 5736, 6565, 5733],
     [5733, 6720, 6567, 6567, 1, 5733, 5734, 6565],
     [6566, 6721, 5735, 5733, 5733, 5733, 5736, 6565],
     [5733, 5733, 6719, 6720, 6567, 6567, 1, 5733],
     [5734, 6565, 6566, 5735, 5733, 5733, 5733, 5736],
     [6565, 5733, 5733, 6720, 6567, 6567, 6567, 1],
     [6722, 1, 5702, 5702, 5702, 1, 211, 212],
     [211, 213, 213, 213, 214, 6723, 6723, 213],
     [1, 74, 75, 76, 77, 78, 1, 213],
     [213, 213, 213, 213, 73, 211, 212, 211],
     [213, 213, 213, 214, 6724, 6724, 213, 1],
     [74, 75, 76, 77, 78, 1, 213, 213],
     [213, 213, 213, 73, 211, 212, 211, 213],
     [213, 213, 6725, 214, 6726, 6726, 213, 1]]"

definition smp_indicies_40 :: "int list list" where
  "smp_indicies_40 =
    [[74, 75, 76, 77, 78, 1, 213, 213],
     [213, 213, 213, 73, 79, 6727, 6728, 6729],
     [6730, 6731, 6727, 6734, 6727, 6727, 1, 74],
     [75, 76, 77, 78, 1, 1, 6727, 6727],
     [6732, 6733, 6733, 73, 79, 6735, 6736, 6737],
     [6735, 6738, 6735, 6735, 1, 74, 75, 76],
     [77, 78, 1, 1, 6735, 6735, 6735, 6735],
     [73, 79, 1, 74, 75, 76, 77, 78],
     [1, 1, 6739, 6739, 6739, 73, 79, 1],
     [74, 75, 76, 77, 78, 1, 1, 6735],
     [6735, 6735, 73, 79, 6737, 6740, 6737, 6738],
     [6737, 6737, 1, 74, 75, 76, 77, 78],
     [1, 1, 6737, 6737, 6737, 6737, 6737, 73],
     [79, 1, 74, 75, 76, 77, 78, 1],
     [1, 6741, 6741, 6741, 73, 79, 1, 74],
     [75, 76, 77, 78, 1, 1, 6737, 6737],
     [6737, 73, 79, 6742, 6743, 6744, 6734, 1],
     [74, 75, 76, 77, 78, 1, 1, 6745],
     [6746, 6746, 73, 79, 6747, 6748, 6747, 1],
     [74, 75, 76, 77, 78, 1, 1, 6749],
     [6749, 6749, 73, 79, 6747, 6747, 1, 74],
     [75, 76, 77, 78, 1, 1, 6749, 6749],
     [6749, 73, 79, 6747, 6750, 6747, 1, 74],
     [75, 76, 77, 78, 1, 1, 6749, 6749],
     [6749, 73, 79, 1, 74, 75, 76, 77],
     [78, 1, 1, 6749, 6751, 6751, 73, 6752],
     [6753, 6752, 6754, 6755, 6756, 6757, 6758, 6755],
     [1, 74, 75, 76, 77, 78, 1, 6751],
     [6751, 6751, 73, 79, 6755, 6755, 1, 74],
     [75, 76, 77, 78, 1, 1, 6751, 6751],
     [6751, 73, 6752, 6753, 6752, 6754, 6757, 6758],
     [1, 74, 75, 76, 77, 78, 1, 6749],
     [6751, 6751, 73, 79, 6759, 6761, 1, 74],
     [75, 76, 77, 78, 1, 1, 6760, 6762],
     [73, 79, 6763, 1, 74, 75, 76, 77],
     [78, 1, 1, 6764, 73, 79, 6765, 1],
     [74, 75, 76, 77, 78, 1, 1, 6766],
     [73, 79, 1, 74, 75, 76, 77, 78],
     [1, 1, 6767, 73, 6768, 6769, 6768, 6770],
     [6771, 1, 74, 75, 76, 77, 78, 1],
     [73, 200, 6772, 200, 6773, 6773, 6773, 6774],
     [6774, 6773, 1, 74, 75, 76, 77, 78],
     [1, 6773, 6773, 6773, 6773, 6773, 73, 6775],
     [1, 6776, 46, 6776, 47, 47, 47, 48],
     [49, 50, 51, 52, 53, 54, 55, 56],
     [57, 58, 48, 49, 50, 51, 52, 53],
     [54, 55, 56, 57, 58, 47, 47, 47],
     [47, 47, 47, 1, 6776, 79, 6776, 6773],
     [6773, 6773, 6774, 6774, 6773, 1, 74, 75],
     [76, 77, 78, 1, 6773, 6773, 6773, 6773],
     [6773, 73, 6777, 6778, 6777, 6773, 6773, 6773],
     [6779, 200, 6780, 6773, 1, 74, 75, 76],
     [77, 78, 1, 6773, 6773, 6773, 6773, 73],
     [6781, 6782, 6781, 199, 200, 6780, 1, 74],
     [75, 76, 77, 78, 1, 73, 6783, 1],
     [6784, 46, 6784, 47, 47, 47, 48, 49],
     [50, 51, 52, 53, 54, 55, 56, 57],
     [58, 48, 49, 50, 51, 52, 53, 54],
     [55, 56, 57, 58, 47, 47, 47, 47],
     [47, 47, 1, 6784, 79, 6784, 199, 200],
     [6780, 1, 74, 75, 76, 77, 78, 1],
     [73, 6780, 6785, 6780, 6786, 6787, 6786, 6786],
     [6788, 6786, 1, 74, 75, 76, 77, 78],
     [1, 6786, 6786, 6786, 6786, 6786, 73, 6789],
     [1, 6790, 46, 6790, 47, 47, 47, 48],
     [49, 50, 51, 52, 53, 54, 55, 56],
     [57, 58, 48, 49, 50, 51, 52, 53],
     [54, 55, 56, 57, 58, 47, 47, 47],
     [47, 47, 47, 1, 6790, 79, 6790, 6786],
     [6787, 6786, 6786, 6788, 6786, 1, 74, 75],
     [76, 77, 78, 1, 6786, 6786, 6786, 6786],
     [6786, 73, 6791, 6792, 6791, 6786, 6786, 6786],
     [6779, 200, 6786, 1, 74, 75, 76, 77],
     [78, 1, 6786, 6786, 6786, 6786, 73, 6798],
     [6799, 6800, 1, 73, 6793, 6794, 6795, 6796],
     [6797, 1, 1, 6787, 6787, 1, 6793, 1],
     [6794, 1, 6795, 1, 6796, 1, 6801, 1],
     [6787, 46, 6787, 47, 47, 47, 48, 49],
     [50, 51, 52, 53, 54, 55, 56, 57],
     [58, 48, 49, 50, 51, 52, 53, 54],
     [55, 56, 57, 58, 47, 47, 47, 47],
     [47, 47, 1, 6791, 6792, 6791, 6779, 200],
     [1, 74, 75, 76, 77, 78, 1, 73],
     [1, 79, 5879, 73, 74, 75, 76, 77],
     [78, 1, 5879, 5879, 6787, 79, 6803, 1],
     [74, 75, 76, 77, 78, 1, 1, 6802],
     [6802, 6802, 73, 79, 6805, 1, 74, 75],
     [76, 77, 78, 1, 1, 6804, 6804, 6804],
     [73, 79, 6805, 1, 74, 75, 76, 77],
     [78, 1, 1, 6806, 6806, 6806, 73, 79],
     [6805, 1, 74, 75, 76, 77, 78, 1],
     [1, 6807, 6807, 6807, 73, 79, 6805, 1],
     [74, 75, 76, 77, 78, 1, 1, 73],
     [79, 6809, 1, 74, 75, 76, 77, 78],
     [1, 1, 6808, 6808, 6808, 73, 79, 6811],
     [1, 74, 75, 76, 77, 78, 1, 1],
     [6810, 6810, 6810, 73, 79, 6811, 1, 74],
     [75, 76, 77, 78, 1, 1, 6812, 6812],
     [6812, 73, 79, 6811, 1, 74, 75, 76],
     [77, 78, 1, 1, 6813, 6813, 6813, 73],
     [79, 6811, 1, 74, 75, 76, 77, 78],
     [1, 1, 73, 79, 6815, 1, 74, 75],
     [76, 77, 78, 1, 1, 6814, 6814, 6814],
     [73, 79, 6817, 1, 74, 75, 76, 77],
     [78, 1, 1, 6816, 6816, 6816, 73, 79],
     [6817, 1, 74, 75, 76, 77, 78, 1],
     [1, 6818, 6818, 6818, 73, 79, 6817, 1],
     [74, 75, 76, 77, 78, 1, 1, 6819],
     [6819, 6819, 73, 79, 6817, 1, 74, 75],
     [76, 77, 78, 1, 1, 73, 79, 6821],
     [1, 74, 75, 76, 77, 78, 1, 1],
     [6820, 6820, 6820, 73, 79, 6823, 1, 74],
     [75, 76, 77, 78, 1, 1, 6822, 6822],
     [6822, 73, 79, 6823, 1, 74, 75, 76],
     [77, 78, 1, 1, 6824, 6824, 6824, 73],
     [79, 6823, 1, 74, 75, 76, 77, 78],
     [1, 1, 6825, 6825, 6825, 73, 79, 6823],
     [1, 74, 75, 76, 77, 78, 1, 1],
     [73, 79, 6827, 1, 74, 75, 76, 77],
     [78, 1, 1, 6826, 6826, 6826, 73, 79],
     [6829, 1, 74, 75, 76, 77, 78, 1],
     [1, 6828, 6828, 6828, 73, 79, 6829, 1],
     [74, 75, 76, 77, 78, 1, 1, 6830],
     [6830, 6830, 73, 79, 6829, 1, 74, 75],
     [76, 77, 78, 1, 1, 6831, 6831, 6831],
     [73, 79, 6829, 1, 74, 75, 76, 77],
     [78, 1, 1, 73, 79, 6833, 1, 74],
     [75, 76, 77, 78, 1, 1, 6832, 6832],
     [6832, 73, 79, 6835, 1, 74, 75, 76],
     [77, 78, 1, 1, 6834, 6834, 6834, 73],
     [79, 6835, 1, 74, 75, 76, 77, 78],
     [1, 1, 6836, 6836, 6836, 73, 79, 6835],
     [1, 74, 75, 76, 77, 78, 1, 1],
     [6837, 6837, 6837, 73, 79, 6835, 1, 74],
     [75, 76, 77, 78, 1, 1, 73, 79],
     [6838, 6839, 6840, 6842, 1, 74, 75, 76],
     [77, 78, 1, 1, 6841, 6843, 6843, 73],
     [79, 6844, 6846, 1, 74, 75, 76, 77],
     [78, 1, 1, 6845, 6845, 6845, 73, 79],
     [6847, 6848, 6849, 1, 74, 75, 76, 77],
     [78, 1, 1, 6850, 73, 79, 6851, 1],
     [74, 75, 76, 77, 78, 1, 1, 73],
     [79, 6852, 6853, 6854, 1, 74, 75, 76],
     [77, 78, 1, 1, 6855, 73, 79, 6856],
     [1, 74, 75, 76, 77, 78, 1, 1],
     [73, 79, 6857, 6858, 6859, 1, 74, 75],
     [76, 77, 78, 1, 1, 6860, 73, 79],
     [6799, 1, 74, 75, 76, 77, 78, 1],
     [1, 73, 79, 6799, 1, 74, 75, 76],
     [77, 78, 1, 1, 6860, 73, 79, 6799]]"

definition smp_indicies_41 :: "int list list" where
  "smp_indicies_41 =
    [[1, 74, 75, 76, 77, 78, 1, 1],
     [6857, 73, 79, 6861, 6799, 1, 74, 75],
     [76, 77, 78, 1, 1, 6860, 6857, 73],
     [79, 6799, 1, 74, 75, 76, 77, 78],
     [1, 1, 6857, 73, 79, 6856, 1, 74],
     [75, 76, 77, 78, 1, 1, 6855, 73],
     [79, 6856, 1, 74, 75, 76, 77, 78],
     [1, 1, 6852, 73, 79, 6856, 6862, 1],
     [74, 75, 76, 77, 78, 1, 1, 6855],
     [6852, 73, 79, 6856, 1, 74, 75, 76],
     [77, 78, 1, 1, 6852, 73, 79, 6851],
     [1, 74, 75, 76, 77, 78, 1, 1],
     [6850, 73, 79, 6851, 1, 74, 75, 76],
     [77, 78, 1, 1, 6847, 73, 79, 6851],
     [6863, 1, 74, 75, 76, 77, 78, 1],
     [1, 6850, 6847, 73, 79, 6851, 1, 74],
     [75, 76, 77, 78, 1, 1, 6847, 73],
     [79, 6846, 1, 74, 75, 76, 77, 78],
     [1, 1, 6864, 6864, 6864, 73, 79, 6846],
     [1, 74, 75, 76, 77, 78, 1, 1],
     [6865, 6865, 6865, 73, 79, 6846, 1, 74],
     [75, 76, 77, 78, 1, 1, 73, 79],
     [6857, 1, 74, 75, 76, 77, 78, 1],
     [1, 6866, 6866, 6866, 73, 79, 6799, 1],
     [74, 75, 76, 77, 78, 1, 1, 6867],
     [6867, 6867, 73, 79, 6799, 1, 74, 75],
     [76, 77, 78, 1, 1, 6868, 6868, 6868],
     [73, 79, 6799, 1, 74, 75, 76, 77],
     [78, 1, 1, 6857, 6857, 6857, 73, 79],
     [6844, 6846, 1, 74, 75, 76, 77, 78],
     [1, 1, 6869, 6845, 6845, 73, 79, 6844],
     [6846, 1, 74, 75, 76, 77, 78, 1],
     [1, 6870, 6864, 6864, 73, 79, 6844, 6846],
     [1, 74, 75, 76, 77, 78, 1, 1],
     [6865, 6865, 6865, 73, 79, 6844, 6871, 6846],
     [1, 74, 75, 76, 77, 78, 1, 1],
     [6869, 6872, 6845, 6845, 73, 79, 6844, 6846],
     [1, 74, 75, 76, 77, 78, 1, 1],
     [6870, 6864, 6864, 6864, 73, 79, 6844, 6846],
     [1, 74, 75, 76, 77, 78, 1, 1],
     [6864, 6864, 6864, 73, 79, 6844, 6846, 1],
     [74, 75, 76, 77, 78, 1, 1, 6872],
     [6845, 6845, 73, 79, 6799, 1, 74, 75],
     [76, 77, 78, 1, 1, 6866, 6866, 6866],
     [73, 79, 6846, 1, 74, 75, 76, 77],
     [78, 1, 1, 6845, 6845, 6845, 73, 79],
     [6873, 6874, 6875, 6799, 1, 74, 75, 76],
     [77, 78, 1, 1, 6876, 6877, 6877, 73],
     [79, 6844, 6879, 6799, 1, 74, 75, 76],
     [77, 78, 1, 1, 6878, 6878, 6878, 73],
     [79, 6879, 6799, 1, 74, 75, 76, 77],
     [78, 1, 1, 6880, 6880, 6880, 73, 79],
     [6879, 6799, 1, 74, 75, 76, 77, 78],
     [1, 1, 6881, 6881, 6881, 73, 79, 6879],
     [6799, 1, 74, 75, 76, 77, 78, 1],
     [1, 73, 79, 1, 74, 75, 76, 77],
     [78, 1, 1, 6866, 6866, 6866, 73, 79],
     [6844, 6879, 6799, 1, 74, 75, 76, 77],
     [78, 1, 1, 6882, 6878, 6878, 73, 79],
     [6844, 6879, 6799, 1, 74, 75, 76, 77],
     [78, 1, 1, 6883, 6880, 6880, 73, 79],
     [6844, 6879, 6799, 1, 74, 75, 76, 77],
     [78, 1, 1, 6881, 6881, 6881, 73, 79],
     [6844, 6884, 6879, 6799, 1, 74, 75, 76],
     [77, 78, 1, 1, 6882, 6885, 6878, 6878],
     [73, 79, 6844, 6879, 6799, 1, 74, 75],
     [76, 77, 78, 1, 1, 6883, 6880, 6880],
     [6880, 73, 79, 6844, 6879, 6799, 1, 74],
     [75, 76, 77, 78, 1, 1, 6880, 6880],
     [6880, 73, 79, 6844, 6879, 6799, 1, 74],
     [75, 76, 77, 78, 1, 1, 6885, 6878],
     [6878, 73, 79, 6879, 6799, 1, 74, 75],
     [76, 77, 78, 1, 1, 6878, 6878, 6878],
     [73, 79, 6886, 6887, 6888, 6799, 1, 74],
     [75, 76, 77, 78, 1, 1, 6889, 6890],
     [6890, 73, 79, 6844, 6892, 6799, 1, 74],
     [75, 76, 77, 78, 1, 1, 6891, 6891],
     [6891, 73, 79, 6892, 6799, 1, 74, 75],
     [76, 77, 78, 1, 1, 6893, 6893, 6893],
     [73, 79, 6892, 6799, 1, 74, 75, 76],
     [77, 78, 1, 1, 6894, 6894, 6894, 73],
     [79, 6892, 6799, 1, 74, 75, 76, 77],
     [78, 1, 1, 73, 79, 6873, 6874, 6875],
     [1, 74, 75, 76, 77, 78, 1, 1],
     [6876, 6877, 6877, 73, 79, 6844, 6892, 6799],
     [1, 74, 75, 76, 77, 78, 1, 1],
     [6895, 6891, 6891, 73, 79, 6844, 6892, 6799],
     [1, 74, 75, 76, 77, 78, 1, 1],
     [6896, 6893, 6893, 73, 79, 6844, 6892, 6799],
     [1, 74, 75, 76, 77, 78, 1, 1],
     [6894, 6894, 6894, 73, 79, 6844, 6897, 6892],
     [6799, 1, 74, 75, 76, 77, 78, 1],
     [1, 6895, 6898, 6891, 6891, 73, 79, 6844],
     [6892, 6799, 1, 74, 75, 76, 77, 78],
     [1, 1, 6896, 6893, 6893, 6893, 73, 79],
     [6844, 6892, 6799, 1, 74, 75, 76, 77],
     [78, 1, 1, 6893, 6893, 6893, 73, 79],
     [6844, 6892, 6799, 1, 74, 75, 76, 77],
     [78, 1, 1, 6898, 6891, 6891, 73, 79],
     [6892, 6799, 1, 74, 75, 76, 77, 78],
     [1, 1, 6891, 6891, 6891, 73, 79, 6899],
     [6900, 6901, 6799, 1, 74, 75, 76, 77],
     [78, 1, 1, 6902, 6903, 6903, 73, 79],
     [6844, 6905, 6799, 1, 74, 75, 76, 77],
     [78, 1, 1, 6904, 6904, 6904, 73, 79],
     [6905, 6799, 1, 74, 75, 76, 77, 78],
     [1, 1, 6906, 6906, 6906, 73, 79, 6905],
     [6799, 1, 74, 75, 76, 77, 78, 1],
     [1, 6907, 6907, 6907, 73, 79, 6905, 6799],
     [1, 74, 75, 76, 77, 78, 1, 1],
     [73, 79, 6886, 6887, 6888, 1, 74, 75],
     [76, 77, 78, 1, 1, 6889, 6890, 6890],
     [73, 79, 6844, 6905, 6799, 1, 74, 75],
     [76, 77, 78, 1, 1, 6908, 6904, 6904],
     [73, 79, 6844, 6905, 6799, 1, 74, 75],
     [76, 77, 78, 1, 1, 6909, 6906, 6906],
     [73, 79, 6844, 6905, 6799, 1, 74, 75],
     [76, 77, 78, 1, 1, 6907, 6907, 6907],
     [73, 79, 6844, 6910, 6905, 6799, 1, 74],
     [75, 76, 77, 78, 1, 1, 6908, 6911],
     [6904, 6904, 73, 79, 6844, 6905, 6799, 1],
     [74, 75, 76, 77, 78, 1, 1, 6909],
     [6906, 6906, 6906, 73, 79, 6844, 6905, 6799],
     [1, 74, 75, 76, 77, 78, 1, 1],
     [6906, 6906, 6906, 73, 79, 6844, 6905, 6799],
     [1, 74, 75, 76, 77, 78, 1, 1],
     [6911, 6904, 6904, 73, 79, 6905, 6799, 1],
     [74, 75, 76, 77, 78, 1, 1, 6904],
     [6904, 6904, 73, 79, 6912, 6913, 6914, 6799],
     [1, 74, 75, 76, 77, 78, 1, 1],
     [6915, 6916, 6916, 73, 79, 6844, 6918, 6799],
     [1, 74, 75, 76, 77, 78, 1, 1],
     [6917, 6917, 6917, 73, 79, 6918, 6799, 1],
     [74, 75, 76, 77, 78, 1, 1, 6919],
     [6919, 6919, 73, 79, 6918, 6799, 1, 74],
     [75, 76, 77, 78, 1, 1, 6920, 6920],
     [6920, 73, 79, 6918, 6799, 1, 74, 75],
     [76, 77, 78, 1, 1, 73, 79, 6899],
     [6900, 6901, 1, 74, 75, 76, 77, 78],
     [1, 1, 6902, 6903, 6903, 73, 79, 6844],
     [6918, 6799, 1, 74, 75, 76, 77, 78],
     [1, 1, 6921, 6917, 6917, 73, 79, 6844],
     [6918, 6799, 1, 74, 75, 76, 77, 78],
     [1, 1, 6922, 6919, 6919, 73, 79, 6844],
     [6918, 6799, 1, 74, 75, 76, 77, 78],
     [1, 1, 6920, 6920, 6920, 73, 79, 6844],
     [6923, 6918, 6799, 1, 74, 75, 76, 77],
     [78, 1, 1, 6921, 6924, 6917, 6917, 73],
     [79, 6844, 6918, 6799, 1, 74, 75, 76],
     [77, 78, 1, 1, 6922, 6919, 6919, 6919]]"

definition smp_indicies_42 :: "int list list" where
  "smp_indicies_42 =
    [[73, 79, 6844, 6918, 6799, 1, 74, 75],
     [76, 77, 78, 1, 1, 6919, 6919, 6919],
     [73, 79, 6844, 6918, 6799, 1, 74, 75],
     [76, 77, 78, 1, 1, 6924, 6917, 6917],
     [73, 79, 6918, 6799, 1, 74, 75, 76],
     [77, 78, 1, 1, 6917, 6917, 6917, 73],
     [79, 6925, 6926, 6927, 6799, 1, 74, 75],
     [76, 77, 78, 1, 1, 6928, 6929, 6929],
     [73, 79, 6844, 6931, 6799, 1, 74, 75],
     [76, 77, 78, 1, 1, 6930, 6930, 6930],
     [73, 79, 6931, 6799, 1, 74, 75, 76],
     [77, 78, 1, 1, 6932, 6932, 6932, 73],
     [79, 6931, 6799, 1, 74, 75, 76, 77],
     [78, 1, 1, 6933, 6933, 6933, 73, 79],
     [6931, 6799, 1, 74, 75, 76, 77, 78],
     [1, 1, 73, 79, 6912, 6913, 6914, 1],
     [74, 75, 76, 77, 78, 1, 1, 6915],
     [6916, 6916, 73, 79, 6844, 6931, 6799, 1],
     [74, 75, 76, 77, 78, 1, 1, 6934],
     [6930, 6930, 73, 79, 6844, 6931, 6799, 1],
     [74, 75, 76, 77, 78, 1, 1, 6935],
     [6932, 6932, 73, 79, 6844, 6931, 6799, 1],
     [74, 75, 76, 77, 78, 1, 1, 6933],
     [6933, 6933, 73, 79, 6844, 6936, 6931, 6799],
     [1, 74, 75, 76, 77, 78, 1, 1],
     [6934, 6937, 6930, 6930, 73, 79, 6844, 6931],
     [6799, 1, 74, 75, 76, 77, 78, 1],
     [1, 6935, 6932, 6932, 6932, 73, 79, 6844],
     [6931, 6799, 1, 74, 75, 76, 77, 78],
     [1, 1, 6932, 6932, 6932, 73, 79, 6844],
     [6931, 6799, 1, 74, 75, 76, 77, 78],
     [1, 1, 6937, 6930, 6930, 73, 79, 6931],
     [6799, 1, 74, 75, 76, 77, 78, 1],
     [1, 6930, 6930, 6930, 73, 79, 6938, 1],
     [74, 75, 76, 77, 78, 1, 1, 73],
     [79, 6939, 6940, 6941, 6799, 1, 74, 75],
     [76, 77, 78, 1, 1, 6942, 6943, 6943],
     [73, 79, 6844, 6945, 6799, 1, 74, 75],
     [76, 77, 78, 1, 1, 6944, 6944, 6944],
     [73, 79, 6945, 6799, 1, 74, 75, 76],
     [77, 78, 1, 1, 6946, 6946, 6946, 73],
     [79, 6945, 6799, 1, 74, 75, 76, 77],
     [78, 1, 1, 6947, 6947, 6947, 73, 79],
     [6945, 6799, 1, 74, 75, 76, 77, 78],
     [1, 1, 73, 79, 6925, 6926, 6927, 1],
     [74, 75, 76, 77, 78, 1, 1, 6928],
     [6929, 6929, 73, 79, 6844, 6945, 6799, 1],
     [74, 75, 76, 77, 78, 1, 1, 6948],
     [6944, 6944, 73, 79, 6844, 6945, 6799, 1],
     [74, 75, 76, 77, 78, 1, 1, 6949],
     [6946, 6946, 73, 79, 6844, 6945, 6799, 1],
     [74, 75, 76, 77, 78, 1, 1, 6947],
     [6947, 6947, 73, 79, 6844, 6950, 6945, 6799],
     [1, 74, 75, 76, 77, 78, 1, 1],
     [6948, 6951, 6944, 6944, 73, 79, 6844, 6945],
     [6799, 1, 74, 75, 76, 77, 78, 1],
     [1, 6949, 6946, 6946, 6946, 73, 79, 6844],
     [6945, 6799, 1, 74, 75, 76, 77, 78],
     [1, 1, 6946, 6946, 6946, 73, 79, 6844],
     [6945, 6799, 1, 74, 75, 76, 77, 78],
     [1, 1, 6951, 6944, 6944, 73, 79, 6945],
     [6799, 1, 74, 75, 76, 77, 78, 1],
     [1, 6944, 6944, 6944, 73, 6777, 6778, 6777],
     [6773, 6773, 6773, 6779, 200, 6780, 6952, 6952],
     [6773, 1, 74, 75, 76, 77, 78, 1],
     [6773, 6773, 6773, 6773, 73, 6777, 6778, 6777],
     [6773, 6773, 6773, 6779, 200, 6780, 6953, 6953],
     [6773, 1, 74, 75, 76, 77, 78, 1],
     [6773, 6773, 6773, 6773, 73, 6777, 6778, 6777],
     [6773, 6773, 6773, 6779, 6954, 200, 6780, 6773],
     [1, 74, 75, 76, 77, 78, 1, 6773],
     [6773, 6773, 6773, 73, 6777, 6778, 6777, 6773],
     [6773, 6773, 6779, 200, 6780, 6955, 6955, 6773],
     [1, 74, 75, 76, 77, 78, 1, 6773],
     [6773, 6773, 6773, 73, 6777, 6778, 6777, 6773],
     [6773, 6773, 6779, 200, 6780, 6956, 6956, 6773],
     [1, 74, 75, 76, 77, 78, 1, 6773],
     [6773, 6773, 6773, 73, 6957, 6958, 6957, 6773],
     [6773, 6773, 6959, 6960, 6961, 6773, 1, 74],
     [75, 76, 77, 78, 1, 6773, 6773, 6773],
     [6773, 73, 6768, 6769, 6768, 6770, 6771, 1],
     [74, 75, 76, 77, 78, 1, 6767, 73],
     [6768, 6769, 6768, 6770, 6771, 1, 74, 75],
     [76, 77, 78, 1, 6766, 73, 6768, 6769],
     [6768, 6770, 6771, 1, 74, 75, 76, 77],
     [78, 1, 6962, 73, 6768, 6769, 6768, 6770],
     [6771, 1, 74, 75, 76, 77, 78, 1],
     [6764, 73, 6768, 6769, 6768, 6770, 6963, 6771],
     [1, 74, 75, 76, 77, 78, 1, 6962],
     [6764, 73, 6768, 6769, 6768, 6770, 6964, 6771],
     [1, 74, 75, 76, 77, 78, 1, 6764],
     [6766, 73, 6768, 6769, 6768, 6770, 6965, 6771],
     [1, 74, 75, 76, 77, 78, 1, 6766],
     [6767, 73, 6768, 6769, 6768, 6770, 6771, 1],
     [74, 75, 76, 77, 78, 1, 6767, 73],
     [79, 6966, 6967, 6968, 1, 74, 75, 76],
     [77, 78, 1, 1, 6969, 6751, 6751, 73],
     [79, 6747, 6970, 6747, 1, 74, 75, 76],
     [77, 78, 1, 1, 6749, 6749, 6749, 73],
     [79, 6971, 6972, 6973, 1, 74, 75, 76],
     [77, 78, 1, 1, 6974, 6751, 6751, 73],
     [79, 6747, 6975, 6747, 1, 74, 75, 76],
     [77, 78, 1, 1, 6749, 6749, 6749, 73],
     [79, 6976, 6977, 6978, 1, 74, 75, 76],
     [77, 78, 1, 1, 6979, 6751, 6751, 73],
     [6980, 6981, 6980, 6982, 6747, 6750, 6983, 6984],
     [6747, 1, 74, 75, 76, 77, 78, 1],
     [6749, 6749, 6749, 73, 6980, 6981, 6980, 6982],
     [6747, 6750, 6983, 6984, 6747, 1, 74, 75],
     [76, 77, 78, 1, 6979, 6749, 6749, 73],
     [6980, 6981, 6980, 6982, 6747, 6750, 6983, 6984],
     [6747, 1, 74, 75, 76, 77, 78, 1],
     [6976, 6749, 6749, 73, 6980, 6981, 6980, 6982],
     [6747, 6750, 6985, 6983, 6984, 6747, 1, 74],
     [75, 76, 77, 78, 1, 6979, 6976, 6749],
     [6749, 73, 6980, 6981, 6980, 6982, 6747, 6750],
     [6983, 6984, 6747, 1, 74, 75, 76, 77],
     [78, 1, 6976, 6749, 6749, 6749, 73, 79],
     [6747, 6975, 6747, 1, 74, 75, 76, 77],
     [78, 1, 1, 6974, 6749, 6749, 73, 79],
     [6747, 6975, 6747, 1, 74, 75, 76, 77],
     [78, 1, 1, 6971, 6749, 6749, 73, 79],
     [6747, 6975, 6986, 6747, 1, 74, 75, 76],
     [77, 78, 1, 1, 6974, 6971, 6749, 6749],
     [73, 79, 6747, 6975, 6747, 1, 74, 75],
     [76, 77, 78, 1, 1, 6971, 6749, 6749],
     [6749, 73, 79, 6747, 6970, 6747, 1, 74],
     [75, 76, 77, 78, 1, 1, 6969, 6749],
     [6749, 73, 79, 6747, 6970, 6747, 1, 74],
     [75, 76, 77, 78, 1, 1, 6966, 6749],
     [6749, 73, 79, 6747, 6970, 6987, 6747, 1],
     [74, 75, 76, 77, 78, 1, 1, 6969],
     [6966, 6749, 6749, 73, 79, 6747, 6970, 6747],
     [1, 74, 75, 76, 77, 78, 1, 1],
     [6966, 6749, 6749, 6749, 73, 79, 6747, 6748],
     [6747, 1, 74, 75, 76, 77, 78, 1],
     [1, 6988, 6749, 6749, 73, 79, 6747, 6748],
     [6747, 1, 74, 75, 76, 77, 78, 1],
     [1, 6989, 6749, 6749, 73, 79, 6747, 6748],
     [6990, 6747, 1, 74, 75, 76, 77, 78],
     [1, 1, 6988, 6989, 6749, 6749, 73, 79],
     [6747, 6748, 6747, 1, 74, 75, 76, 77],
     [78, 1, 1, 6989, 6749, 6749, 6749, 73],
     [79, 6992, 1, 74, 75, 76, 77, 78],
     [1, 1, 6991, 6991, 6991, 73, 79, 6994],
     [1, 74, 75, 76, 77, 78, 1, 1],
     [6993, 6993, 6993, 73, 79, 6994, 1, 74],
     [75, 76, 77, 78, 1, 1, 6995, 6995],
     [6995, 73, 79, 6994, 1, 74, 75, 76],
     [77, 78, 1, 1, 6996, 6996, 6996, 73]]"

definition smp_indicies_43 :: "int list list" where
  "smp_indicies_43 =
    [[79, 6994, 1, 74, 75, 76, 77, 78],
     [1, 1, 73, 79, 6998, 1, 74, 75],
     [76, 77, 78, 1, 1, 6997, 6997, 6997],
     [73, 79, 7000, 1, 74, 75, 76, 77],
     [78, 1, 1, 6999, 6999, 6999, 73, 79],
     [7000, 1, 74, 75, 76, 77, 78, 1],
     [1, 7001, 7001, 7001, 73, 79, 7000, 1],
     [74, 75, 76, 77, 78, 1, 1, 7002],
     [7002, 7002, 73, 79, 7000, 1, 74, 75],
     [76, 77, 78, 1, 1, 73, 79, 7004],
     [1, 74, 75, 76, 77, 78, 1, 1],
     [7003, 7003, 7003, 73, 79, 7006, 1, 74],
     [75, 76, 77, 78, 1, 1, 7005, 7005],
     [7005, 73, 79, 7006, 1, 74, 75, 76],
     [77, 78, 1, 1, 7007, 7007, 7007, 73],
     [79, 7006, 1, 74, 75, 76, 77, 78],
     [1, 1, 7008, 7008, 7008, 73, 79, 7006],
     [1, 74, 75, 76, 77, 78, 1, 1],
     [73, 79, 7010, 1, 74, 75, 76, 77],
     [78, 1, 1, 7009, 7009, 7009, 73, 79],
     [7012, 1, 74, 75, 76, 77, 78, 1],
     [1, 7011, 7011, 7011, 73, 79, 7012, 1],
     [74, 75, 76, 77, 78, 1, 1, 7013],
     [7013, 7013, 73, 79, 7012, 1, 74, 75],
     [76, 77, 78, 1, 1, 7014, 7014, 7014],
     [73, 79, 7012, 1, 74, 75, 76, 77],
     [78, 1, 1, 73, 79, 7016, 1, 74],
     [75, 76, 77, 78, 1, 1, 7015, 7015],
     [7015, 73, 79, 7018, 1, 74, 75, 76],
     [77, 78, 1, 1, 7017, 7017, 7017, 73],
     [79, 7018, 1, 74, 75, 76, 77, 78],
     [1, 1, 7019, 7019, 7019, 73, 79, 7018],
     [1, 74, 75, 76, 77, 78, 1, 1],
     [7020, 7020, 7020, 73, 79, 7018, 1, 74],
     [75, 76, 77, 78, 1, 1, 73, 79],
     [7022, 1, 74, 75, 76, 77, 78, 1],
     [1, 7021, 7021, 7021, 73, 79, 7024, 1],
     [74, 75, 76, 77, 78, 1, 1, 7023],
     [7023, 7023, 73, 79, 7024, 1, 74, 75],
     [76, 77, 78, 1, 1, 7025, 7025, 7025],
     [73, 79, 7024, 1, 74, 75, 76, 77],
     [78, 1, 1, 7026, 7026, 7026, 73, 79],
     [7024, 1, 74, 75, 76, 77, 78, 1],
     [1, 73, 79, 7027, 7028, 7029, 7031, 1],
     [74, 75, 76, 77, 78, 1, 1, 7030],
     [7032, 7032, 73, 79, 7033, 7035, 1, 74],
     [75, 76, 77, 78, 1, 1, 7034, 7034],
     [7034, 73, 79, 7036, 7037, 7038, 1, 74],
     [75, 76, 77, 78, 1, 1, 7039, 73],
     [79, 7040, 1, 74, 75, 76, 77, 78],
     [1, 1, 73, 79, 7041, 7042, 7043, 1],
     [74, 75, 76, 77, 78, 1, 1, 7044],
     [73, 79, 7045, 1, 74, 75, 76, 77],
     [78, 1, 1, 73, 79, 7046, 7047, 7048],
     [1, 74, 75, 76, 77, 78, 1, 1],
     [7049, 73, 79, 7050, 1, 74, 75, 76],
     [77, 78, 1, 1, 73, 7051, 7052, 7051],
     [7053, 7054, 7055, 1, 74, 75, 76, 77],
     [78, 1, 73, 79, 7050, 1, 74, 75],
     [76, 77, 78, 1, 1, 7049, 73, 79],
     [7050, 1, 74, 75, 76, 77, 78, 1],
     [1, 7046, 73, 79, 7056, 7050, 1, 74],
     [75, 76, 77, 78, 1, 1, 7049, 7046],
     [73, 79, 7050, 1, 74, 75, 76, 77],
     [78, 1, 1, 7046, 73, 79, 7045, 1],
     [74, 75, 76, 77, 78, 1, 1, 7044],
     [73, 79, 7045, 1, 74, 75, 76, 77],
     [78, 1, 1, 7041, 73, 79, 7045, 7057],
     [1, 74, 75, 76, 77, 78, 1, 1],
     [7044, 7041, 73, 79, 7045, 1, 74, 75],
     [76, 77, 78, 1, 1, 7041, 73, 79],
     [7040, 1, 74, 75, 76, 77, 78, 1],
     [1, 7039, 73, 79, 7040, 1, 74, 75],
     [76, 77, 78, 1, 1, 7036, 73, 79],
     [7040, 7058, 1, 74, 75, 76, 77, 78],
     [1, 1, 7039, 7036, 73, 79, 7040, 1],
     [74, 75, 76, 77, 78, 1, 1, 7036],
     [73, 79, 7035, 1, 74, 75, 76, 77],
     [78, 1, 1, 7059, 7059, 7059, 73, 79],
     [7035, 1, 74, 75, 76, 77, 78, 1],
     [1, 7060, 7060, 7060, 73, 79, 7035, 1],
     [74, 75, 76, 77, 78, 1, 1, 73],
     [79, 7046, 1, 74, 75, 76, 77, 78],
     [1, 1, 7061, 7061, 7061, 73, 79, 7050],
     [1, 74, 75, 76, 77, 78, 1, 1],
     [7062, 7062, 7062, 73, 79, 7050, 1, 74],
     [75, 76, 77, 78, 1, 1, 7063, 7063],
     [7063, 73, 79, 7050, 1, 74, 75, 76],
     [77, 78, 1, 1, 7046, 7046, 7046, 73],
     [79, 7033, 7035, 1, 74, 75, 76, 77],
     [78, 1, 1, 7064, 7034, 7034, 73, 79],
     [7033, 7035, 1, 74, 75, 76, 77, 78],
     [1, 1, 7065, 7059, 7059, 73, 79, 7033],
     [7035, 1, 74, 75, 76, 77, 78, 1],
     [1, 7060, 7060, 7060, 73, 79, 7033, 7066],
     [7035, 1, 74, 75, 76, 77, 78, 1],
     [1, 7064, 7067, 7034, 7034, 73, 79, 7033],
     [7035, 1, 74, 75, 76, 77, 78, 1],
     [1, 7065, 7059, 7059, 7059, 73, 79, 7033],
     [7035, 1, 74, 75, 76, 77, 78, 1],
     [1, 7059, 7059, 7059, 73, 79, 7033, 7035],
     [1, 74, 75, 76, 77, 78, 1, 1],
     [7067, 7034, 7034, 73, 79, 7050, 1, 74],
     [75, 76, 77, 78, 1, 1, 7061, 7061],
     [7061, 73, 79, 7035, 1, 74, 75, 76],
     [77, 78, 1, 1, 7034, 7034, 7034, 73],
     [79, 7068, 7069, 7070, 7050, 1, 74, 75],
     [76, 77, 78, 1, 1, 7071, 7072, 7072],
     [73, 79, 7033, 7074, 7050, 1, 74, 75],
     [76, 77, 78, 1, 1, 7073, 7073, 7073],
     [73, 79, 7074, 7050, 1, 74, 75, 76],
     [77, 78, 1, 1, 7075, 7075, 7075, 73],
     [79, 7074, 7050, 1, 74, 75, 76, 77],
     [78, 1, 1, 7076, 7076, 7076, 73, 79],
     [7074, 7050, 1, 74, 75, 76, 77, 78],
     [1, 1, 73, 79, 1, 74, 75, 76],
     [77, 78, 1, 1, 7061, 7061, 7061, 73],
     [79, 7033, 7074, 7050, 1, 74, 75, 76],
     [77, 78, 1, 1, 7077, 7073, 7073, 73],
     [79, 7033, 7074, 7050, 1, 74, 75, 76],
     [77, 78, 1, 1, 7078, 7075, 7075, 73],
     [79, 7033, 7074, 7050, 1, 74, 75, 76],
     [77, 78, 1, 1, 7076, 7076, 7076, 73],
     [79, 7033, 7079, 7074, 7050, 1, 74, 75],
     [76, 77, 78, 1, 1, 7077, 7080, 7073],
     [7073, 73, 79, 7033, 7074, 7050, 1, 74],
     [75, 76, 77, 78, 1, 1, 7078, 7075],
     [7075, 7075, 73, 79, 7033, 7074, 7050, 1],
     [74, 75, 76, 77, 78, 1, 1, 7075],
     [7075, 7075, 73, 79, 7033, 7074, 7050, 1],
     [74, 75, 76, 77, 78, 1, 1, 7080],
     [7073, 7073, 73, 79, 7074, 7050, 1, 74],
     [75, 76, 77, 78, 1, 1, 7073, 7073],
     [7073, 73, 79, 7081, 7082, 7083, 7050, 1],
     [74, 75, 76, 77, 78, 1, 1, 7084],
     [7085, 7085, 73, 79, 7033, 7087, 7050, 1],
     [74, 75, 76, 77, 78, 1, 1, 7086],
     [7086, 7086, 73, 79, 7087, 7050, 1, 74],
     [75, 76, 77, 78, 1, 1, 7088, 7088],
     [7088, 73, 79, 7087, 7050, 1, 74, 75],
     [76, 77, 78, 1, 1, 7089, 7089, 7089],
     [73, 79, 7087, 7050, 1, 74, 75, 76],
     [77, 78, 1, 1, 73, 79, 7068, 7069],
     [7070, 1, 74, 75, 76, 77, 78, 1],
     [1, 7071, 7072, 7072, 73, 79, 7033, 7087],
     [7050, 1, 74, 75, 76, 77, 78, 1],
     [1, 7090, 7086, 7086, 73, 79, 7033, 7087],
     [7050, 1, 74, 75, 76, 77, 78, 1],
     [1, 7091, 7088, 7088, 73, 79, 7033, 7087],
     [7050, 1, 74, 75, 76, 77, 78, 1]]"

definition smp_indicies_44 :: "int list list" where
  "smp_indicies_44 =
    [[1, 7089, 7089, 7089, 73, 79, 7033, 7092],
     [7087, 7050, 1, 74, 75, 76, 77, 78],
     [1, 1, 7090, 7093, 7086, 7086, 73, 79],
     [7033, 7087, 7050, 1, 74, 75, 76, 77],
     [78, 1, 1, 7091, 7088, 7088, 7088, 73],
     [79, 7033, 7087, 7050, 1, 74, 75, 76],
     [77, 78, 1, 1, 7088, 7088, 7088, 73],
     [79, 7033, 7087, 7050, 1, 74, 75, 76],
     [77, 78, 1, 1, 7093, 7086, 7086, 73],
     [79, 7087, 7050, 1, 74, 75, 76, 77],
     [78, 1, 1, 7086, 7086, 7086, 73, 79],
     [7094, 7095, 7096, 7050, 1, 74, 75, 76],
     [77, 78, 1, 1, 7097, 7098, 7098, 73],
     [79, 7033, 7100, 7050, 1, 74, 75, 76],
     [77, 78, 1, 1, 7099, 7099, 7099, 73],
     [79, 7100, 7050, 1, 74, 75, 76, 77],
     [78, 1, 1, 7101, 7101, 7101, 73, 79],
     [7100, 7050, 1, 74, 75, 76, 77, 78],
     [1, 1, 7102, 7102, 7102, 73, 79, 7100],
     [7050, 1, 74, 75, 76, 77, 78, 1],
     [1, 73, 79, 7081, 7082, 7083, 1, 74],
     [75, 76, 77, 78, 1, 1, 7084, 7085],
     [7085, 73, 79, 7033, 7100, 7050, 1, 74],
     [75, 76, 77, 78, 1, 1, 7103, 7099],
     [7099, 73, 79, 7033, 7100, 7050, 1, 74],
     [75, 76, 77, 78, 1, 1, 7104, 7101],
     [7101, 73, 79, 7033, 7100, 7050, 1, 74],
     [75, 76, 77, 78, 1, 1, 7102, 7102],
     [7102, 73, 79, 7033, 7105, 7100, 7050, 1],
     [74, 75, 76, 77, 78, 1, 1, 7103],
     [7106, 7099, 7099, 73, 79, 7033, 7100, 7050],
     [1, 74, 75, 76, 77, 78, 1, 1],
     [7104, 7101, 7101, 7101, 73, 79, 7033, 7100],
     [7050, 1, 74, 75, 76, 77, 78, 1],
     [1, 7101, 7101, 7101, 73, 79, 7033, 7100],
     [7050, 1, 74, 75, 76, 77, 78, 1],
     [1, 7106, 7099, 7099, 73, 79, 7100, 7050],
     [1, 74, 75, 76, 77, 78, 1, 1],
     [7099, 7099, 7099, 73, 79, 7107, 7108, 7109],
     [7050, 1, 74, 75, 76, 77, 78, 1],
     [1, 7110, 7111, 7111, 73, 79, 7033, 7113],
     [7050, 1, 74, 75, 76, 77, 78, 1],
     [1, 7112, 7112, 7112, 73, 79, 7113, 7050],
     [1, 74, 75, 76, 77, 78, 1, 1],
     [7114, 7114, 7114, 73, 79, 7113, 7050, 1],
     [74, 75, 76, 77, 78, 1, 1, 7115],
     [7115, 7115, 73, 79, 7113, 7050, 1, 74],
     [75, 76, 77, 78, 1, 1, 73, 79],
     [7094, 7095, 7096, 1, 74, 75, 76, 77],
     [78, 1, 1, 7097, 7098, 7098, 73, 79],
     [7033, 7113, 7050, 1, 74, 75, 76, 77],
     [78, 1, 1, 7116, 7112, 7112, 73, 79],
     [7033, 7113, 7050, 1, 74, 75, 76, 77],
     [78, 1, 1, 7117, 7114, 7114, 73, 79],
     [7033, 7113, 7050, 1, 74, 75, 76, 77],
     [78, 1, 1, 7115, 7115, 7115, 73, 79],
     [7033, 7118, 7113, 7050, 1, 74, 75, 76],
     [77, 78, 1, 1, 7116, 7119, 7112, 7112],
     [73, 79, 7033, 7113, 7050, 1, 74, 75],
     [76, 77, 78, 1, 1, 7117, 7114, 7114],
     [7114, 73, 79, 7033, 7113, 7050, 1, 74],
     [75, 76, 77, 78, 1, 1, 7114, 7114],
     [7114, 73, 79, 7033, 7113, 7050, 1, 74],
     [75, 76, 77, 78, 1, 1, 7119, 7112],
     [7112, 73, 79, 7113, 7050, 1, 74, 75],
     [76, 77, 78, 1, 1, 7112, 7112, 7112],
     [73, 79, 7120, 7121, 7122, 7050, 1, 74],
     [75, 76, 77, 78, 1, 1, 7123, 7124],
     [7124, 73, 79, 7033, 7126, 7050, 1, 74],
     [75, 76, 77, 78, 1, 1, 7125, 7125],
     [7125, 73, 79, 7126, 7050, 1, 74, 75],
     [76, 77, 78, 1, 1, 7127, 7127, 7127],
     [73, 79, 7126, 7050, 1, 74, 75, 76],
     [77, 78, 1, 1, 7128, 7128, 7128, 73],
     [79, 7126, 7050, 1, 74, 75, 76, 77],
     [78, 1, 1, 73, 79, 7107, 7108, 7109],
     [1, 74, 75, 76, 77, 78, 1, 1],
     [7110, 7111, 7111, 73, 79, 7033, 7126, 7050],
     [1, 74, 75, 76, 77, 78, 1, 1],
     [7129, 7125, 7125, 73, 79, 7033, 7126, 7050],
     [1, 74, 75, 76, 77, 78, 1, 1],
     [7130, 7127, 7127, 73, 79, 7033, 7126, 7050],
     [1, 74, 75, 76, 77, 78, 1, 1],
     [7128, 7128, 7128, 73, 79, 7033, 7131, 7126],
     [7050, 1, 74, 75, 76, 77, 78, 1],
     [1, 7129, 7132, 7125, 7125, 73, 79, 7033],
     [7126, 7050, 1, 74, 75, 76, 77, 78],
     [1, 1, 7130, 7127, 7127, 7127, 73, 79],
     [7033, 7126, 7050, 1, 74, 75, 76, 77],
     [78, 1, 1, 7127, 7127, 7127, 73, 79],
     [7033, 7126, 7050, 1, 74, 75, 76, 77],
     [78, 1, 1, 7132, 7125, 7125, 73, 79],
     [7126, 7050, 1, 74, 75, 76, 77, 78],
     [1, 1, 7125, 7125, 7125, 73, 79, 7133],
     [1, 74, 75, 76, 77, 78, 1, 1],
     [73, 79, 7134, 7135, 7136, 7050, 1, 74],
     [75, 76, 77, 78, 1, 1, 7137, 7138],
     [7138, 73, 79, 7033, 7140, 7050, 1, 74],
     [75, 76, 77, 78, 1, 1, 7139, 7139],
     [7139, 73, 79, 7140, 7050, 1, 74, 75],
     [76, 77, 78, 1, 1, 7141, 7141, 7141],
     [73, 79, 7140, 7050, 1, 74, 75, 76],
     [77, 78, 1, 1, 7142, 7142, 7142, 73],
     [79, 7140, 7050, 1, 74, 75, 76, 77],
     [78, 1, 1, 73, 79, 7120, 7121, 7122],
     [1, 74, 75, 76, 77, 78, 1, 1],
     [7123, 7124, 7124, 73, 79, 7033, 7140, 7050],
     [1, 74, 75, 76, 77, 78, 1, 1],
     [7143, 7139, 7139, 73, 79, 7033, 7140, 7050],
     [1, 74, 75, 76, 77, 78, 1, 1],
     [7144, 7141, 7141, 73, 79, 7033, 7140, 7050],
     [1, 74, 75, 76, 77, 78, 1, 1],
     [7142, 7142, 7142, 73, 79, 7033, 7145, 7140],
     [7050, 1, 74, 75, 76, 77, 78, 1],
     [1, 7143, 7146, 7139, 7139, 73, 79, 7033],
     [7140, 7050, 1, 74, 75, 76, 77, 78],
     [1, 1, 7144, 7141, 7141, 7141, 73, 79],
     [7033, 7140, 7050, 1, 74, 75, 76, 77],
     [78, 1, 1, 7141, 7141, 7141, 73, 79],
     [7033, 7140, 7050, 1, 74, 75, 76, 77],
     [78, 1, 1, 7146, 7139, 7139, 73, 79],
     [7140, 7050, 1, 74, 75, 76, 77, 78],
     [1, 1, 7139, 7139, 7139, 73, 79, 6735],
     [6736, 7147, 7148, 6735, 6737, 6735, 6738, 7147],
     [6735, 1, 74, 75, 76, 77, 78, 1],
     [1, 6735, 7149, 7149, 7149, 73, 79, 6735],
     [6736, 7147, 6737, 6735, 6738, 7147, 6735, 1],
     [74, 75, 76, 77, 78, 1, 1, 6735],
     [6735, 7149, 7149, 7149, 73, 79, 6735, 6736],
     [7147, 7150, 6735, 6737, 6735, 6738, 7147, 6735],
     [1, 74, 75, 76, 77, 78, 1, 1],
     [6735, 7149, 7149, 7149, 73, 79, 6735, 6736],
     [6737, 6735, 6738, 6735, 6735, 1, 74, 75],
     [76, 77, 78, 1, 1, 6735, 6735, 7149],
     [7151, 7151, 73, 6752, 6753, 6752, 6735, 6736],
     [6754, 7152, 7153, 7154, 6758, 6735, 6738, 7152],
     [6735, 1, 74, 75, 76, 77, 78, 1],
     [6735, 7151, 7151, 7151, 73, 79, 6735, 6736],
     [7152, 6737, 6735, 6738, 7152, 6735, 1, 74],
     [75, 76, 77, 78, 1, 1, 6735, 6735],
     [7151, 7151, 7151, 73, 6752, 6753, 6752, 6735],
     [6736, 6754, 7154, 6758, 6735, 6738, 6735, 6735],
     [1, 74, 75, 76, 77, 78, 1, 6735],
     [7149, 7151, 7151, 73, 79, 6737, 6740, 7155],
     [7157, 6737, 6738, 6737, 6737, 1, 74, 75],
     [76, 77, 78, 1, 1, 6737, 6737, 7156],
     [7158, 6737, 6737, 73, 79, 6737, 6740, 7159],
     [6737, 6738, 6737, 6737, 1, 74, 75, 76],
     [77, 78, 1, 1, 6737, 6737, 7160, 6737],
     [6737, 73, 79, 6737, 6740, 7161, 6737, 6738]]"

definition smp_indicies_45 :: "int list list" where
  "smp_indicies_45 =
    [[6737, 6737, 1, 74, 75, 76, 77, 78],
     [1, 1, 6737, 6737, 7162, 6737, 6737, 73],
     [79, 6737, 6740, 6737, 6737, 6738, 6737, 6737],
     [1, 74, 75, 76, 77, 78, 1, 1],
     [6737, 6737, 7163, 6737, 6737, 73, 6768, 6769],
     [6768, 6737, 6740, 6770, 6771, 6737, 6738, 6737],
     [6737, 1, 74, 75, 76, 77, 78, 1],
     [6737, 6737, 6737, 6737, 73, 6768, 6769, 6768],
     [6737, 6740, 6770, 6771, 6737, 6738, 6737, 6737],
     [1, 74, 75, 76, 77, 78, 1, 6737],
     [7163, 6737, 6737, 73, 6768, 6769, 6768, 6737],
     [6740, 6770, 6771, 6737, 6738, 6737, 6737, 1],
     [74, 75, 76, 77, 78, 1, 6737, 7162],
     [6737, 6737, 73, 6768, 6769, 6768, 6737, 6740],
     [6770, 6771, 6737, 6738, 6737, 6737, 1, 74],
     [75, 76, 77, 78, 1, 6737, 7164, 6737],
     [6737, 73, 6768, 6769, 6768, 6737, 6740, 6770],
     [6771, 6737, 6738, 6737, 6737, 1, 74, 75],
     [76, 77, 78, 1, 6737, 7160, 6737, 6737],
     [73, 6768, 6769, 6768, 6737, 6740, 6770, 7165],
     [6771, 6737, 6738, 6737, 6737, 1, 74, 75],
     [76, 77, 78, 1, 6737, 7164, 7160, 6737],
     [6737, 73, 6768, 6769, 6768, 6737, 6740, 6770],
     [7166, 6771, 6737, 6738, 6737, 6737, 1, 74],
     [75, 76, 77, 78, 1, 6737, 7160, 7162],
     [6737, 6737, 73, 6768, 6769, 6768, 6737, 6740],
     [6770, 7167, 6771, 6737, 6738, 6737, 6737, 1],
     [74, 75, 76, 77, 78, 1, 6737, 7162],
     [7163, 6737, 6737, 73, 6768, 6769, 6768, 6737],
     [6740, 6770, 6771, 6737, 6738, 6737, 6737, 1],
     [74, 75, 76, 77, 78, 1, 6737, 7163],
     [6737, 6737, 6737, 73, 79, 6735, 6736, 7168],
     [7169, 7170, 6737, 6735, 6738, 6735, 6735, 1],
     [74, 75, 76, 77, 78, 1, 1, 6735],
     [6735, 7171, 7151, 7151, 73, 79, 6735, 6736],
     [7147, 7172, 6735, 6737, 6735, 6738, 7147, 6735],
     [1, 74, 75, 76, 77, 78, 1, 1],
     [6735, 7149, 7149, 7149, 73, 79, 6735, 6736],
     [7173, 7174, 7175, 6737, 6735, 6738, 6735, 6735],
     [1, 74, 75, 76, 77, 78, 1, 1],
     [6735, 6735, 7176, 7151, 7151, 73, 79, 6735],
     [6736, 7147, 7177, 6735, 6737, 6735, 6738, 7147],
     [6735, 1, 74, 75, 76, 77, 78, 1],
     [1, 6735, 7149, 7149, 7149, 73, 79, 6735],
     [6736, 7178, 7179, 7180, 6737, 6735, 6738, 6735],
     [6735, 1, 74, 75, 76, 77, 78, 1],
     [1, 6735, 6735, 7181, 7151, 7151, 73, 6980],
     [6981, 6980, 6735, 6736, 6982, 7147, 7150, 7182],
     [6984, 6735, 6738, 7147, 6735, 1, 74, 75],
     [76, 77, 78, 1, 6735, 7149, 7149, 7149],
     [73, 6980, 6981, 6980, 6735, 6736, 6982, 7147],
     [7150, 7182, 6984, 6735, 6738, 7147, 6735, 1],
     [74, 75, 76, 77, 78, 1, 6735, 7181],
     [7149, 7149, 73, 6980, 6981, 6980, 6735, 6736],
     [6982, 7147, 7150, 7182, 6984, 6735, 6738, 7147],
     [6735, 1, 74, 75, 76, 77, 78, 1],
     [6735, 7178, 7149, 7149, 73, 6980, 6981, 6980],
     [6735, 6736, 6982, 7147, 7150, 7183, 7182, 6984],
     [6735, 6738, 7147, 6735, 1, 74, 75, 76],
     [77, 78, 1, 6735, 7181, 7178, 7149, 7149],
     [73, 6980, 6981, 6980, 6735, 6736, 6982, 7147],
     [7150, 7182, 6984, 6735, 6738, 7147, 6735, 1],
     [74, 75, 76, 77, 78, 1, 6735, 7178],
     [7149, 7149, 7149, 73, 79, 6735, 6736, 7147],
     [7177, 6735, 6737, 6735, 6738, 7147, 6735, 1],
     [74, 75, 76, 77, 78, 1, 1, 6735],
     [7176, 7149, 7149, 73, 79, 6735, 6736, 7147],
     [7177, 6735, 6737, 6735, 6738, 7147, 6735, 1],
     [74, 75, 76, 77, 78, 1, 1, 6735],
     [7173, 7149, 7149, 73, 79, 6735, 6736, 7147],
     [7177, 6735, 7184, 6737, 6735, 6738, 7147, 6735],
     [1, 74, 75, 76, 77, 78, 1, 1],
     [6735, 7176, 7173, 7149, 7149, 73, 79, 6735],
     [6736, 7147, 7177, 6735, 6737, 6735, 6738, 7147],
     [6735, 1, 74, 75, 76, 77, 78, 1],
     [1, 6735, 7173, 7149, 7149, 7149, 73, 79],
     [6735, 6736, 7147, 7172, 6735, 6737, 6735, 6738],
     [7147, 6735, 1, 74, 75, 76, 77, 78],
     [1, 1, 6735, 7171, 7149, 7149, 73, 79],
     [6735, 6736, 7147, 7172, 6735, 6737, 6735, 6738],
     [7147, 6735, 1, 74, 75, 76, 77, 78],
     [1, 1, 6735, 7168, 7149, 7149, 73, 79],
     [6735, 6736, 7147, 7172, 6735, 7185, 6737, 6735],
     [6738, 7147, 6735, 1, 74, 75, 76, 77],
     [78, 1, 1, 6735, 7171, 7168, 7149, 7149],
     [73, 79, 6735, 6736, 7147, 7172, 6735, 6737],
     [6735, 6738, 7147, 6735, 1, 74, 75, 76],
     [77, 78, 1, 1, 6735, 7168, 7149, 7149],
     [7149, 73, 79, 6735, 6736, 7147, 7148, 6735],
     [6737, 6735, 6738, 7147, 6735, 1, 74, 75],
     [76, 77, 78, 1, 1, 6735, 7186, 7149],
     [7149, 73, 79, 6735, 6736, 7147, 7148, 6735],
     [6737, 6735, 6738, 7147, 6735, 1, 74, 75],
     [76, 77, 78, 1, 1, 6735, 7187, 7149],
     [7149, 73, 79, 6735, 6736, 7147, 7148, 6735],
     [7188, 6737, 6735, 6738, 7147, 6735, 1, 74],
     [75, 76, 77, 78, 1, 1, 6735, 7186],
     [7187, 7149, 7149, 73, 79, 6735, 6736, 7147],
     [7148, 6735, 6737, 6735, 6738, 7147, 6735, 1],
     [74, 75, 76, 77, 78, 1, 1, 6735],
     [7187, 7149, 7149, 7149, 73, 211, 212, 211],
     [213, 213, 213, 7189, 214, 213, 1, 74],
     [75, 76, 77, 78, 1, 213, 213, 213],
     [213, 213, 73, 79, 7190, 7190, 7191, 7190],
     [7190, 7190, 7190, 1, 74, 75, 76, 77],
     [78, 1, 1, 7190, 7190, 7190, 7190, 73],
     [79, 7190, 7190, 7191, 7192, 7190, 7190, 7190],
     [7190, 1, 74, 75, 76, 77, 78, 1],
     [1, 7190, 7190, 7190, 7190, 73, 79, 1],
     [74, 75, 76, 77, 78, 1, 1, 7193],
     [7193, 7193, 73, 79, 1, 74, 75, 76],
     [77, 78, 1, 1, 7190, 7190, 7190, 73],
     [79, 7192, 7194, 7195, 7196, 7192, 7192, 7192],
     [7192, 1, 74, 75, 76, 77, 78, 1],
     [1, 7192, 7192, 7192, 7192, 73, 79, 1],
     [74, 75, 76, 77, 78, 1, 1, 7197],
     [7197, 7197, 73, 79, 1, 74, 75, 76],
     [77, 78, 1, 1, 7192, 7192, 7192, 73],
     [79, 184, 185, 184, 184, 184, 1, 74],
     [75, 76, 77, 78, 1, 1, 184, 184],
     [184, 184, 73, 79, 177, 178, 179, 180],
     [181, 182, 7198, 177, 177, 7198, 177, 1],
     [74, 75, 76, 77, 78, 1, 1, 177],
     [177, 177, 177, 73, 73, 79, 73, 178],
     [73, 7199, 7200, 7201, 7202, 73, 73, 73],
     [1, 73, 74, 75, 76, 77, 78, 1],
     [73, 73, 73, 177, 79, 7203, 7204, 7203],
     [184, 184, 179, 186, 181, 182, 184, 184],
     [7205, 7203, 1, 74, 75, 76, 77, 78],
     [1, 1, 184, 7203, 7203, 7203, 7203, 73],
     [79, 7206, 7207, 7206, 187, 187, 189, 190],
     [191, 187, 187, 7205, 7206, 1, 74, 75],
     [76, 77, 78, 1, 1, 187, 7206, 7206],
     [7206, 7206, 73, 79, 7205, 7205, 7205, 7209],
     [7210, 7211, 7205, 1, 74, 75, 76, 77],
     [78, 1, 1, 7205, 7205, 7208, 7208, 7205],
     [7205, 7208, 7205, 73, 79, 7205, 7205, 7205],
     [7209, 7210, 7211, 7205, 1, 74, 75, 76],
     [77, 78, 1, 1, 7205, 7205, 7205, 7205],
     [7205, 73, 79, 7205, 7205, 7205, 7209, 7210],
     [7211, 7205, 1, 74, 75, 76, 77, 78],
     [1, 1, 7205, 7205, 7206, 7206, 7205, 7205],
     [7206, 7205, 73, 79, 177, 178, 179, 180],
     [181, 182, 7212, 7213, 177, 177, 7212, 7213],
     [177, 1, 74, 75, 76, 77, 78, 1],
     [1, 177, 177, 177, 177, 73, 73, 79],
     [73, 178, 73, 7214, 7215, 7216, 7217, 73],
     [73, 73, 1, 73, 74, 75, 76, 77],
     [78, 1, 73, 73, 73, 177, 79, 177],
     [178, 179, 180, 181, 182, 7218, 177, 177]]"

definition smp_indicies_46 :: "int list list" where
  "smp_indicies_46 =
    [[7218, 177, 1, 74, 75, 76, 77, 78],
     [1, 1, 177, 177, 177, 177, 73, 79],
     [177, 178, 179, 180, 181, 182, 7219, 177],
     [177, 7219, 177, 1, 74, 75, 76, 77],
     [78, 1, 1, 177, 177, 177, 177, 73],
     [73, 79, 73, 178, 73, 179, 7220, 181],
     [182, 73, 73, 73, 1, 73, 74, 75],
     [76, 77, 78, 1, 73, 73, 73, 177],
     [79, 7221, 7222, 7221, 184, 184, 179, 186],
     [181, 182, 184, 184, 7223, 7221, 1, 74],
     [75, 76, 77, 78, 1, 1, 184, 7221],
     [7221, 7221, 7221, 73, 79, 7224, 7225, 7224],
     [187, 187, 7226, 7227, 7228, 187, 187, 7229],
     [7224, 1, 74, 75, 76, 77, 78, 1],
     [1, 187, 7224, 7224, 7224, 7224, 73, 79],
     [7229, 7229, 7229, 7231, 7232, 7233, 7229, 1],
     [74, 75, 76, 77, 78, 1, 1, 7229],
     [7229, 7230, 7230, 7229, 7229, 7230, 7229, 73],
     [79, 7229, 7229, 7229, 7231, 7232, 7233, 7229],
     [1, 74, 75, 76, 77, 78, 1, 1],
     [7229, 7229, 7229, 7229, 7229, 73, 79, 7229],
     [7229, 7229, 7231, 7232, 7233, 7229, 1, 74],
     [75, 76, 77, 78, 1, 1, 7229, 7229],
     [7224, 7224, 7229, 7229, 7224, 7229, 73, 79],
     [177, 178, 179, 180, 181, 182, 7234, 177],
     [177, 7234, 177, 1, 74, 75, 76, 77],
     [78, 1, 1, 177, 177, 177, 177, 73],
     [79, 177, 178, 179, 180, 181, 182, 7235],
     [177, 177, 7235, 177, 1, 74, 75, 76],
     [77, 78, 1, 1, 177, 177, 177, 177],
     [73, 79, 177, 178, 179, 180, 181, 182],
     [7236, 177, 177, 7236, 177, 1, 74, 75],
     [76, 77, 78, 1, 1, 177, 177, 177],
     [177, 73, 79, 177, 178, 179, 180, 181],
     [182, 7237, 177, 177, 7237, 177, 1, 74],
     [75, 76, 77, 78, 1, 1, 177, 177],
     [177, 177, 73, 79, 177, 178, 179, 180],
     [181, 182, 7238, 177, 177, 7238, 177, 1],
     [74, 75, 76, 77, 78, 1, 1, 177],
     [177, 177, 177, 73, 79, 177, 178, 179],
     [180, 181, 182, 7239, 177, 177, 7239, 177],
     [1, 74, 75, 76, 77, 78, 1, 1],
     [177, 177, 177, 177, 73, 79, 177, 178],
     [179, 180, 181, 182, 7240, 177, 177, 7240],
     [177, 1, 74, 75, 76, 77, 78, 1],
     [1, 177, 177, 177, 177, 73, 79, 177],
     [178, 179, 180, 181, 182, 7241, 177, 177],
     [7241, 177, 1, 74, 75, 76, 77, 78],
     [1, 1, 177, 177, 177, 177, 73, 73],
     [79, 73, 178, 73, 179, 7242, 181, 182],
     [73, 73, 73, 1, 73, 74, 75, 76],
     [77, 78, 1, 73, 73, 73, 177, 79],
     [7243, 7244, 7243, 184, 184, 179, 186, 181],
     [182, 7245, 7246, 7247, 7248, 184, 184, 7249],
     [7245, 7246, 7247, 7248, 7243, 1, 74, 75],
     [76, 77, 78, 1, 1, 184, 7243, 7243],
     [7243, 7243, 73, 79, 7250, 7251, 7250, 187],
     [187, 7252, 7253, 7254, 187, 187, 7255, 7250],
     [1, 74, 75, 76, 77, 78, 1, 1],
     [187, 7250, 7250, 7250, 7250, 73, 79, 7255],
     [7255, 7255, 7257, 7258, 7259, 7255, 1, 74],
     [75, 76, 77, 78, 1, 1, 7255, 7255],
     [7256, 7256, 7255, 7255, 7256, 7255, 73, 79],
     [7255, 7255, 7255, 7257, 7258, 7259, 7255, 1],
     [74, 75, 76, 77, 78, 1, 1, 7255],
     [7255, 7255, 7255, 7255, 73, 79, 7255, 7255],
     [7255, 7257, 7258, 7259, 7255, 1, 74, 75],
     [76, 77, 78, 1, 1, 7255, 7255, 7250],
     [7250, 7255, 7255, 7250, 7255, 73, 79, 7250],
     [7251, 7250, 187, 187, 7252, 7253, 7254, 7260],
     [187, 187, 7255, 7260, 7250, 1, 74, 75],
     [76, 77, 78, 1, 1, 187, 7250, 7250],
     [7250, 7250, 73, 79, 7250, 7251, 7250, 187],
     [187, 7252, 7253, 7254, 7261, 187, 187, 7255],
     [7261, 7250, 1, 74, 75, 76, 77, 78],
     [1, 1, 187, 7250, 7250, 7250, 7250, 73],
     [79, 7250, 7251, 7250, 187, 187, 7252, 7253],
     [7254, 7262, 187, 187, 7255, 7262, 7250, 1],
     [74, 75, 76, 77, 78, 1, 1, 187],
     [7250, 7250, 7250, 7250, 73, 79, 7250, 7251],
     [7250, 187, 187, 7263, 7264, 7265, 187, 187],
     [7255, 7250, 1, 74, 75, 76, 77, 78],
     [1, 1, 187, 7250, 7250, 7250, 7250, 73],
     [79, 7250, 7251, 7250, 187, 187, 7252, 7253],
     [7254, 7266, 7267, 187, 187, 7255, 7266, 7267],
     [7250, 1, 74, 75, 76, 77, 78, 1],
     [1, 187, 7250, 7250, 7250, 7250, 73, 79],
     [7250, 7251, 7250, 187, 187, 7252, 7253, 7254],
     [7268, 187, 187, 7255, 7268, 7250, 1, 74],
     [75, 76, 77, 78, 1, 1, 187, 7250],
     [7250, 7250, 7250, 73, 79, 7250, 7251, 7250],
     [187, 187, 7269, 7270, 7271, 187, 187, 7255],
     [7250, 1, 74, 75, 76, 77, 78, 1],
     [1, 187, 7250, 7250, 7250, 7250, 73, 79],
     [7250, 7251, 7250, 187, 187, 7252, 7253, 7254],
     [7272, 187, 187, 7255, 7272, 7250, 1, 74],
     [75, 76, 77, 78, 1, 1, 187, 7250],
     [7250, 7250, 7250, 73, 79, 7250, 7251, 7250],
     [187, 187, 7273, 7274, 7275, 187, 187, 7255],
     [7250, 1, 74, 75, 76, 77, 78, 1],
     [1, 187, 7250, 7250, 7250, 7250, 73, 79],
     [7250, 7251, 7250, 187, 187, 7252, 7253, 7254],
     [7276, 187, 187, 7255, 7276, 7250, 1, 74],
     [75, 76, 77, 78, 1, 1, 187, 7250],
     [7250, 7250, 7250, 73, 79, 7250, 7251, 7250],
     [187, 187, 7252, 7253, 7254, 7277, 187, 187],
     [7255, 7277, 7250, 1, 74, 75, 76, 77],
     [78, 1, 1, 187, 7250, 7250, 7250, 7250],
     [73, 79, 7250, 7251, 7250, 187, 187, 7278],
     [7279, 7280, 187, 187, 7255, 7250, 1, 74],
     [75, 76, 77, 78, 1, 1, 187, 7250],
     [7250, 7250, 7250, 73, 79, 7250, 7251, 7250],
     [187, 187, 7252, 7253, 7254, 7281, 187, 187],
     [7255, 7281, 7250, 1, 74, 75, 76, 77],
     [78, 1, 1, 187, 7250, 7250, 7250, 7250],
     [73, 79, 7250, 7251, 7250, 187, 187, 7282],
     [7283, 7284, 7285, 187, 187, 7255, 7285, 7250],
     [1, 74, 75, 76, 77, 78, 1, 1],
     [187, 7250, 7250, 7250, 7250, 73, 79, 7250],
     [7251, 7250, 187, 187, 7286, 7287, 7288, 187],
     [187, 7255, 7250, 1, 74, 75, 76, 77],
     [78, 1, 1, 187, 7250, 7250, 7250, 7250],
     [73, 79, 169, 170, 171, 1, 74, 75],
     [76, 77, 78, 1, 1, 168, 73, 79],
     [169, 170, 171, 1, 74, 75, 76, 77],
     [78, 1, 1, 167, 73, 79, 169, 170],
     [171, 1, 74, 75, 76, 77, 78, 1],
     [1, 7289, 73, 79, 169, 170, 171, 1],
     [74, 75, 76, 77, 78, 1, 1, 165],
     [73, 79, 7290, 169, 170, 171, 1, 74],
     [75, 76, 77, 78, 1, 1, 7289, 165],
     [73, 79, 7291, 169, 170, 171, 1, 74],
     [75, 76, 77, 78, 1, 1, 165, 167],
     [73, 79, 7292, 169, 170, 171, 1, 74],
     [75, 76, 77, 78, 1, 1, 167, 168],
     [73, 79, 169, 170, 171, 1, 74, 75],
     [76, 77, 78, 1, 1, 168, 73, 79],
     [7293, 7294, 7295, 1, 74, 75, 76, 77],
     [78, 1, 1, 7296, 153, 153, 73, 79],
     [149, 7297, 149, 1, 74, 75, 76, 77],
     [78, 1, 1, 151, 151, 151, 73, 79],
     [7298, 7299, 7300, 1, 74, 75, 76, 77],
     [78, 1, 1, 7301, 153, 153, 73, 79],
     [149, 7302, 149, 1, 74, 75, 76, 77],
     [78, 1, 1, 151, 151, 151, 73, 79],
     [7303, 7304, 7305, 1, 74, 75, 76, 77],
     [78, 1, 1, 7306, 153, 153, 73, 79],
     [149, 152, 7307, 7308, 7309, 7310, 149, 1],
     [74, 75, 76, 77, 78, 1, 1, 151],
     [151, 151, 73, 79, 149, 152, 7307, 7308]]"

definition smp_indicies_47 :: "int list list" where
  "smp_indicies_47 =
    [[7309, 7310, 149, 1, 74, 75, 76, 77],
     [78, 1, 1, 7306, 151, 151, 73, 79],
     [149, 152, 7307, 7308, 7309, 7310, 149, 1],
     [74, 75, 76, 77, 78, 1, 1, 7303],
     [151, 151, 73, 79, 149, 152, 7311, 7307],
     [7308, 7309, 7310, 149, 1, 74, 75, 76],
     [77, 78, 1, 1, 7306, 7303, 151, 151],
     [73, 79, 149, 152, 7307, 7308, 7309, 7310],
     [149, 1, 74, 75, 76, 77, 78, 1],
     [1, 7303, 151, 151, 151, 73, 79, 149],
     [7302, 149, 1, 74, 75, 76, 77, 78],
     [1, 1, 7301, 151, 151, 73, 79, 149],
     [7302, 149, 1, 74, 75, 76, 77, 78],
     [1, 1, 7298, 151, 151, 73, 79, 149],
     [7302, 7312, 149, 1, 74, 75, 76, 77],
     [78, 1, 1, 7301, 7298, 151, 151, 73],
     [79, 149, 7302, 149, 1, 74, 75, 76],
     [77, 78, 1, 1, 7298, 151, 151, 151],
     [73, 79, 149, 7297, 149, 1, 74, 75],
     [76, 77, 78, 1, 1, 7296, 151, 151],
     [73, 79, 149, 7297, 149, 1, 74, 75],
     [76, 77, 78, 1, 1, 7293, 151, 151],
     [73, 79, 149, 7297, 7313, 149, 1, 74],
     [75, 76, 77, 78, 1, 1, 7296, 7293],
     [151, 151, 73, 79, 149, 7297, 149, 1],
     [74, 75, 76, 77, 78, 1, 1, 7293],
     [151, 151, 151, 73, 79, 149, 150, 149],
     [1, 74, 75, 76, 77, 78, 1, 1],
     [7314, 151, 151, 73, 79, 149, 150, 149],
     [1, 74, 75, 76, 77, 78, 1, 1],
     [7315, 151, 151, 73, 79, 149, 150, 7316],
     [149, 1, 74, 75, 76, 77, 78, 1],
     [1, 7314, 7315, 151, 151, 73, 79, 149],
     [150, 149, 1, 74, 75, 76, 77, 78],
     [1, 1, 7315, 151, 151, 151, 73, 79],
     [7318, 1, 74, 75, 76, 77, 78, 1],
     [1, 7317, 7317, 7317, 73, 79, 7320, 1],
     [74, 75, 76, 77, 78, 1, 1, 7319],
     [7319, 7319, 73, 79, 7320, 1, 74, 75],
     [76, 77, 78, 1, 1, 7321, 7321, 7321],
     [73, 79, 7320, 1, 74, 75, 76, 77],
     [78, 1, 1, 7322, 7322, 7322, 73, 79],
     [7320, 1, 74, 75, 76, 77, 78, 1],
     [1, 73, 79, 7324, 1, 74, 75, 76],
     [77, 78, 1, 1, 7323, 7323, 7323, 73],
     [79, 7326, 1, 74, 75, 76, 77, 78],
     [1, 1, 7325, 7325, 7325, 73, 79, 7326],
     [1, 74, 75, 76, 77, 78, 1, 1],
     [7327, 7327, 7327, 73, 79, 7326, 1, 74],
     [75, 76, 77, 78, 1, 1, 7328, 7328],
     [7328, 73, 79, 7326, 1, 74, 75, 76],
     [77, 78, 1, 1, 73, 79, 7330, 1],
     [74, 75, 76, 77, 78, 1, 1, 7329],
     [7329, 7329, 73, 79, 7332, 1, 74, 75],
     [76, 77, 78, 1, 1, 7331, 7331, 7331],
     [73, 79, 7332, 1, 74, 75, 76, 77],
     [78, 1, 1, 7333, 7333, 7333, 73, 79],
     [7332, 1, 74, 75, 76, 77, 78, 1],
     [1, 7334, 7334, 7334, 73, 79, 7332, 1],
     [74, 75, 76, 77, 78, 1, 1, 73],
     [79, 7336, 1, 74, 75, 76, 77, 78],
     [1, 1, 7335, 7335, 7335, 73, 79, 7338],
     [1, 74, 75, 76, 77, 78, 1, 1],
     [7337, 7337, 7337, 73, 79, 7338, 1, 74],
     [75, 76, 77, 78, 1, 1, 7339, 7339],
     [7339, 73, 79, 7338, 1, 74, 75, 76],
     [77, 78, 1, 1, 7340, 7340, 7340, 73],
     [79, 7338, 1, 74, 75, 76, 77, 78],
     [1, 1, 73, 79, 7342, 1, 74, 75],
     [76, 77, 78, 1, 1, 7341, 7341, 7341],
     [73, 79, 7344, 1, 74, 75, 76, 77],
     [78, 1, 1, 7343, 7343, 7343, 73, 79],
     [7344, 1, 74, 75, 76, 77, 78, 1],
     [1, 7345, 7345, 7345, 73, 79, 7344, 1],
     [74, 75, 76, 77, 78, 1, 1, 7346],
     [7346, 7346, 73, 79, 7344, 1, 74, 75],
     [76, 77, 78, 1, 1, 73, 79, 7348],
     [1, 74, 75, 76, 77, 78, 1, 1],
     [7347, 7347, 7347, 73, 79, 7350, 1, 74],
     [75, 76, 77, 78, 1, 1, 7349, 7349],
     [7349, 73, 79, 7350, 1, 74, 75, 76],
     [77, 78, 1, 1, 7351, 7351, 7351, 73],
     [79, 7350, 1, 74, 75, 76, 77, 78],
     [1, 1, 7352, 7352, 7352, 73, 79, 7350],
     [1, 74, 75, 76, 77, 78, 1, 1],
     [73, 79, 7353, 7354, 7355, 7357, 1, 74],
     [75, 76, 77, 78, 1, 1, 7356, 7358],
     [7358, 73, 79, 7359, 7361, 1, 74, 75],
     [76, 77, 78, 1, 1, 7360, 7360, 7360],
     [73, 79, 7362, 7363, 7364, 1, 74, 75],
     [76, 77, 78, 1, 1, 7365, 73, 79],
     [7366, 1, 74, 75, 76, 77, 78, 1],
     [1, 73, 79, 7367, 7368, 7369, 1, 74],
     [75, 76, 77, 78, 1, 1, 7370, 73],
     [79, 7371, 1, 74, 75, 76, 77, 78],
     [1, 1, 73, 79, 7372, 7373, 7374, 1],
     [74, 75, 76, 77, 78, 1, 1, 7375],
     [73, 79, 7376, 1, 74, 75, 76, 77],
     [78, 1, 1, 73, 79, 7377, 7378, 7379],
     [7380, 1, 74, 75, 76, 77, 78, 1],
     [1, 73, 79, 7376, 1, 74, 75, 76],
     [77, 78, 1, 1, 7375, 73, 79, 7376],
     [1, 74, 75, 76, 77, 78, 1, 1],
     [7372, 73, 79, 7381, 7376, 1, 74, 75],
     [76, 77, 78, 1, 1, 7375, 7372, 73],
     [79, 7376, 1, 74, 75, 76, 77, 78],
     [1, 1, 7372, 73, 79, 7371, 1, 74],
     [75, 76, 77, 78, 1, 1, 7370, 73],
     [79, 7371, 1, 74, 75, 76, 77, 78],
     [1, 1, 7367, 73, 79, 7371, 7382, 1],
     [74, 75, 76, 77, 78, 1, 1, 7370],
     [7367, 73, 79, 7371, 1, 74, 75, 76],
     [77, 78, 1, 1, 7367, 73, 79, 7366],
     [1, 74, 75, 76, 77, 78, 1, 1],
     [7365, 73, 79, 7366, 1, 74, 75, 76],
     [77, 78, 1, 1, 7362, 73, 79, 7366],
     [7383, 1, 74, 75, 76, 77, 78, 1],
     [1, 7365, 7362, 73, 79, 7366, 1, 74],
     [75, 76, 77, 78, 1, 1, 7362, 73],
     [79, 7361, 1, 74, 75, 76, 77, 78],
     [1, 1, 7384, 7384, 7384, 73, 79, 7361],
     [1, 74, 75, 76, 77, 78, 1, 1],
     [7385, 7385, 7385, 73, 79, 7361, 1, 74],
     [75, 76, 77, 78, 1, 1, 73, 79],
     [7372, 1, 74, 75, 76, 77, 78, 1],
     [1, 7386, 7386, 7386, 73, 79, 7376, 1],
     [74, 75, 76, 77, 78, 1, 1, 7387],
     [7387, 7387, 73, 79, 7376, 1, 74, 75],
     [76, 77, 78, 1, 1, 7388, 7388, 7388],
     [73, 79, 7376, 1, 74, 75, 76, 77],
     [78, 1, 1, 7372, 7372, 7372, 73, 79],
     [7359, 7361, 1, 74, 75, 76, 77, 78],
     [1, 1, 7389, 7360, 7360, 73, 79, 7359],
     [7361, 1, 74, 75, 76, 77, 78, 1],
     [1, 7390, 7384, 7384, 73, 79, 7359, 7361],
     [1, 74, 75, 76, 77, 78, 1, 1],
     [7385, 7385, 7385, 73, 79, 7359, 7391, 7361],
     [1, 74, 75, 76, 77, 78, 1, 1],
     [7389, 7392, 7360, 7360, 73, 79, 7359, 7361],
     [1, 74, 75, 76, 77, 78, 1, 1],
     [7390, 7384, 7384, 7384, 73, 79, 7359, 7361],
     [1, 74, 75, 76, 77, 78, 1, 1],
     [7384, 7384, 7384, 73, 79, 7359, 7361, 1],
     [74, 75, 76, 77, 78, 1, 1, 7392],
     [7360, 7360, 73, 79, 7376, 1, 74, 75],
     [76, 77, 78, 1, 1, 7386, 7386, 7386],
     [73, 79, 7361, 1, 74, 75, 76, 77],
     [78, 1, 1, 7360, 7360, 7360, 73, 79],
     [7393, 7394, 7395, 7376, 1, 74, 75, 76],
     [77, 78, 1, 1, 7396, 7397, 7397, 73]]"

definition smp_indicies_48 :: "int list list" where
  "smp_indicies_48 =
    [[79, 7359, 7399, 7376, 1, 74, 75, 76],
     [77, 78, 1, 1, 7398, 7398, 7398, 73],
     [79, 7399, 7376, 1, 74, 75, 76, 77],
     [78, 1, 1, 7400, 7400, 7400, 73, 79],
     [7399, 7376, 1, 74, 75, 76, 77, 78],
     [1, 1, 7401, 7401, 7401, 73, 79, 7399],
     [7376, 1, 74, 75, 76, 77, 78, 1],
     [1, 73, 79, 1, 74, 75, 76, 77],
     [78, 1, 1, 7386, 7386, 7386, 73, 79],
     [7359, 7399, 7376, 1, 74, 75, 76, 77],
     [78, 1, 1, 7402, 7398, 7398, 73, 79],
     [7359, 7399, 7376, 1, 74, 75, 76, 77],
     [78, 1, 1, 7403, 7400, 7400, 73, 79],
     [7359, 7399, 7376, 1, 74, 75, 76, 77],
     [78, 1, 1, 7401, 7401, 7401, 73, 79],
     [7359, 7404, 7399, 7376, 1, 74, 75, 76],
     [77, 78, 1, 1, 7402, 7405, 7398, 7398],
     [73, 79, 7359, 7399, 7376, 1, 74, 75],
     [76, 77, 78, 1, 1, 7403, 7400, 7400],
     [7400, 73, 79, 7359, 7399, 7376, 1, 74],
     [75, 76, 77, 78, 1, 1, 7400, 7400],
     [7400, 73, 79, 7359, 7399, 7376, 1, 74],
     [75, 76, 77, 78, 1, 1, 7405, 7398],
     [7398, 73, 79, 7399, 7376, 1, 74, 75],
     [76, 77, 78, 1, 1, 7398, 7398, 7398],
     [73, 79, 7406, 7407, 7408, 7376, 1, 74],
     [75, 76, 77, 78, 1, 1, 7409, 7410],
     [7410, 73, 79, 7359, 7412, 7376, 1, 74],
     [75, 76, 77, 78, 1, 1, 7411, 7411],
     [7411, 73, 79, 7412, 7376, 1, 74, 75],
     [76, 77, 78, 1, 1, 7413, 7413, 7413],
     [73, 79, 7412, 7376, 1, 74, 75, 76],
     [77, 78, 1, 1, 7414, 7414, 7414, 73],
     [79, 7412, 7376, 1, 74, 75, 76, 77],
     [78, 1, 1, 73, 79, 7393, 7394, 7395],
     [1, 74, 75, 76, 77, 78, 1, 1],
     [7396, 7397, 7397, 73, 79, 7359, 7412, 7376],
     [1, 74, 75, 76, 77, 78, 1, 1],
     [7415, 7411, 7411, 73, 79, 7359, 7412, 7376],
     [1, 74, 75, 76, 77, 78, 1, 1],
     [7416, 7413, 7413, 73, 79, 7359, 7412, 7376],
     [1, 74, 75, 76, 77, 78, 1, 1],
     [7414, 7414, 7414, 73, 79, 7359, 7417, 7412],
     [7376, 1, 74, 75, 76, 77, 78, 1],
     [1, 7415, 7418, 7411, 7411, 73, 79, 7359],
     [7412, 7376, 1, 74, 75, 76, 77, 78],
     [1, 1, 7416, 7413, 7413, 7413, 73, 79],
     [7359, 7412, 7376, 1, 74, 75, 76, 77],
     [78, 1, 1, 7413, 7413, 7413, 73, 79],
     [7359, 7412, 7376, 1, 74, 75, 76, 77],
     [78, 1, 1, 7418, 7411, 7411, 73, 79],
     [7412, 7376, 1, 74, 75, 76, 77, 78],
     [1, 1, 7411, 7411, 7411, 73, 79, 7419],
     [7420, 7421, 7376, 1, 74, 75, 76, 77],
     [78, 1, 1, 7422, 7423, 7423, 73, 79],
     [7359, 7425, 7376, 1, 74, 75, 76, 77],
     [78, 1, 1, 7424, 7424, 7424, 73, 79],
     [7425, 7376, 1, 74, 75, 76, 77, 78],
     [1, 1, 7426, 7426, 7426, 73, 79, 7425],
     [7376, 1, 74, 75, 76, 77, 78, 1],
     [1, 7427, 7427, 7427, 73, 79, 7425, 7376],
     [1, 74, 75, 76, 77, 78, 1, 1],
     [73, 79, 7406, 7407, 7408, 1, 74, 75],
     [76, 77, 78, 1, 1, 7409, 7410, 7410],
     [73, 79, 7359, 7425, 7376, 1, 74, 75],
     [76, 77, 78, 1, 1, 7428, 7424, 7424],
     [73, 79, 7359, 7425, 7376, 1, 74, 75],
     [76, 77, 78, 1, 1, 7429, 7426, 7426],
     [73, 79, 7359, 7425, 7376, 1, 74, 75],
     [76, 77, 78, 1, 1, 7427, 7427, 7427],
     [73, 79, 7359, 7430, 7425, 7376, 1, 74],
     [75, 76, 77, 78, 1, 1, 7428, 7431],
     [7424, 7424, 73, 79, 7359, 7425, 7376, 1],
     [74, 75, 76, 77, 78, 1, 1, 7429],
     [7426, 7426, 7426, 73, 79, 7359, 7425, 7376],
     [1, 74, 75, 76, 77, 78, 1, 1],
     [7426, 7426, 7426, 73, 79, 7359, 7425, 7376],
     [1, 74, 75, 76, 77, 78, 1, 1],
     [7431, 7424, 7424, 73, 79, 7425, 7376, 1],
     [74, 75, 76, 77, 78, 1, 1, 7424],
     [7424, 7424, 73, 79, 7432, 7433, 7434, 7376],
     [1, 74, 75, 76, 77, 78, 1, 1],
     [7435, 7436, 7436, 73, 79, 7359, 7438, 7376],
     [1, 74, 75, 76, 77, 78, 1, 1],
     [7437, 7437, 7437, 73, 79, 7438, 7376, 1],
     [74, 75, 76, 77, 78, 1, 1, 7439],
     [7439, 7439, 73, 79, 7438, 7376, 1, 74],
     [75, 76, 77, 78, 1, 1, 7440, 7440],
     [7440, 73, 79, 7438, 7376, 1, 74, 75],
     [76, 77, 78, 1, 1, 73, 79, 7419],
     [7420, 7421, 1, 74, 75, 76, 77, 78],
     [1, 1, 7422, 7423, 7423, 73, 79, 7359],
     [7438, 7376, 1, 74, 75, 76, 77, 78],
     [1, 1, 7441, 7437, 7437, 73, 79, 7359],
     [7438, 7376, 1, 74, 75, 76, 77, 78],
     [1, 1, 7442, 7439, 7439, 73, 79, 7359],
     [7438, 7376, 1, 74, 75, 76, 77, 78],
     [1, 1, 7440, 7440, 7440, 73, 79, 7359],
     [7443, 7438, 7376, 1, 74, 75, 76, 77],
     [78, 1, 1, 7441, 7444, 7437, 7437, 73],
     [79, 7359, 7438, 7376, 1, 74, 75, 76],
     [77, 78, 1, 1, 7442, 7439, 7439, 7439],
     [73, 79, 7359, 7438, 7376, 1, 74, 75],
     [76, 77, 78, 1, 1, 7439, 7439, 7439],
     [73, 79, 7359, 7438, 7376, 1, 74, 75],
     [76, 77, 78, 1, 1, 7444, 7437, 7437],
     [73, 79, 7438, 7376, 1, 74, 75, 76],
     [77, 78, 1, 1, 7437, 7437, 7437, 73],
     [79, 7445, 7446, 7447, 7376, 1, 74, 75],
     [76, 77, 78, 1, 1, 7448, 7449, 7449],
     [73, 79, 7359, 7451, 7376, 1, 74, 75],
     [76, 77, 78, 1, 1, 7450, 7450, 7450],
     [73, 79, 7451, 7376, 1, 74, 75, 76],
     [77, 78, 1, 1, 7452, 7452, 7452, 73],
     [79, 7451, 7376, 1, 74, 75, 76, 77],
     [78, 1, 1, 7453, 7453, 7453, 73, 79],
     [7451, 7376, 1, 74, 75, 76, 77, 78],
     [1, 1, 73, 79, 7432, 7433, 7434, 1],
     [74, 75, 76, 77, 78, 1, 1, 7435],
     [7436, 7436, 73, 79, 7359, 7451, 7376, 1],
     [74, 75, 76, 77, 78, 1, 1, 7454],
     [7450, 7450, 73, 79, 7359, 7451, 7376, 1],
     [74, 75, 76, 77, 78, 1, 1, 7455],
     [7452, 7452, 73, 79, 7359, 7451, 7376, 1],
     [74, 75, 76, 77, 78, 1, 1, 7453],
     [7453, 7453, 73, 79, 7359, 7456, 7451, 7376],
     [1, 74, 75, 76, 77, 78, 1, 1],
     [7454, 7457, 7450, 7450, 73, 79, 7359, 7451],
     [7376, 1, 74, 75, 76, 77, 78, 1],
     [1, 7455, 7452, 7452, 7452, 73, 79, 7359],
     [7451, 7376, 1, 74, 75, 76, 77, 78],
     [1, 1, 7452, 7452, 7452, 73, 79, 7359],
     [7451, 7376, 1, 74, 75, 76, 77, 78],
     [1, 1, 7457, 7450, 7450, 73, 79, 7451],
     [7376, 1, 74, 75, 76, 77, 78, 1],
     [1, 7450, 7450, 7450, 73, 79, 7458, 1],
     [74, 75, 76, 77, 78, 1, 1, 73],
     [79, 7459, 7460, 7461, 7376, 1, 74, 75],
     [76, 77, 78, 1, 1, 7462, 7463, 7463],
     [73, 79, 7359, 7465, 7376, 1, 74, 75],
     [76, 77, 78, 1, 1, 7464, 7464, 7464],
     [73, 79, 7465, 7376, 1, 74, 75, 76],
     [77, 78, 1, 1, 7466, 7466, 7466, 73],
     [79, 7465, 7376, 1, 74, 75, 76, 77],
     [78, 1, 1, 7467, 7467, 7467, 73, 79],
     [7465, 7376, 1, 74, 75, 76, 77, 78],
     [1, 1, 73, 79, 7445, 7446, 7447, 1],
     [74, 75, 76, 77, 78, 1, 1, 7448],
     [7449, 7449, 73, 79, 7359, 7465, 7376, 1],
     [74, 75, 76, 77, 78, 1, 1, 7468]]"

definition smp_indicies_49 :: "int list list" where
  "smp_indicies_49 =
    [[7464, 7464, 73, 79, 7359, 7465, 7376, 1],
     [74, 75, 76, 77, 78, 1, 1, 7469],
     [7466, 7466, 73, 79, 7359, 7465, 7376, 1],
     [74, 75, 76, 77, 78, 1, 1, 7467],
     [7467, 7467, 73, 79, 7359, 7470, 7465, 7376],
     [1, 74, 75, 76, 77, 78, 1, 1],
     [7468, 7471, 7464, 7464, 73, 79, 7359, 7465],
     [7376, 1, 74, 75, 76, 77, 78, 1],
     [1, 7469, 7466, 7466, 7466, 73, 79, 7359],
     [7465, 7376, 1, 74, 75, 76, 77, 78],
     [1, 1, 7466, 7466, 7466, 73, 79, 7359],
     [7465, 7376, 1, 74, 75, 76, 77, 78],
     [1, 1, 7471, 7464, 7464, 73, 79, 7465],
     [7376, 1, 74, 75, 76, 77, 78, 1],
     [1, 7464, 7464, 7464, 73, 79, 137, 138],
     [7472, 7473, 139, 137, 137, 137, 140, 7472],
     [137, 1, 74, 75, 76, 77, 78, 1],
     [1, 137, 7474, 7474, 7474, 73, 79, 137],
     [138, 7472, 139, 137, 137, 137, 140, 7472],
     [137, 1, 74, 75, 76, 77, 78, 1],
     [1, 137, 7474, 7474, 7474, 73, 79, 137],
     [138, 7472, 7475, 139, 137, 137, 137, 140],
     [7472, 137, 1, 74, 75, 76, 77, 78],
     [1, 1, 137, 7474, 7474, 7474, 73, 79],
     [137, 138, 139, 137, 137, 137, 140, 137],
     [137, 1, 74, 75, 76, 77, 78, 1],
     [1, 137, 7474, 7476, 7476, 73, 79, 137],
     [138, 7477, 7478, 7479, 7480, 137, 158, 7481],
     [140, 7477, 137, 1, 74, 75, 76, 77],
     [78, 1, 1, 137, 7476, 7476, 7476, 73],
     [79, 137, 138, 7477, 139, 137, 137, 137],
     [140, 7477, 137, 1, 74, 75, 76, 77],
     [78, 1, 1, 137, 7476, 7476, 7476, 73],
     [79, 137, 138, 7479, 7480, 137, 158, 7481],
     [140, 137, 137, 1, 74, 75, 76, 77],
     [78, 1, 1, 137, 7474, 7476, 7476, 73],
     [79, 139, 142, 7482, 7484, 139, 140, 139],
     [139, 1, 74, 75, 76, 77, 78, 1],
     [1, 139, 7483, 7485, 139, 139, 73, 79],
     [139, 142, 7486, 139, 140, 139, 139, 1],
     [74, 75, 76, 77, 78, 1, 1, 139],
     [7487, 139, 139, 73, 79, 139, 142, 7488],
     [139, 140, 139, 139, 1, 74, 75, 76],
     [77, 78, 1, 1, 139, 7489, 139, 139],
     [73, 79, 139, 142, 139, 139, 140, 139],
     [139, 1, 74, 75, 76, 77, 78, 1],
     [1, 139, 7490, 139, 139, 73, 79, 139],
     [142, 169, 170, 171, 140, 139, 139, 1],
     [74, 75, 76, 77, 78, 1, 1, 139],
     [139, 139, 139, 73, 79, 139, 142, 169],
     [170, 171, 140, 139, 139, 1, 74, 75],
     [76, 77, 78, 1, 1, 139, 7490, 139],
     [139, 73, 79, 139, 142, 169, 170, 171],
     [140, 139, 139, 1, 74, 75, 76, 77],
     [78, 1, 1, 139, 7489, 139, 139, 73],
     [79, 139, 142, 169, 170, 171, 140, 139],
     [139, 1, 74, 75, 76, 77, 78, 1],
     [1, 139, 7491, 139, 139, 73, 79, 139],
     [142, 169, 170, 171, 140, 139, 139, 1],
     [74, 75, 76, 77, 78, 1, 1, 139],
     [7487, 139, 139, 73, 79, 139, 142, 7492],
     [169, 170, 171, 140, 139, 139, 1, 74],
     [75, 76, 77, 78, 1, 1, 139, 7491],
     [7487, 139, 139, 73, 79, 139, 142, 7493],
     [169, 170, 171, 140, 139, 139, 1, 74],
     [75, 76, 77, 78, 1, 1, 139, 7487],
     [7489, 139, 139, 73, 79, 139, 142, 7494],
     [169, 170, 171, 140, 139, 139, 1, 74],
     [75, 76, 77, 78, 1, 1, 139, 7489],
     [7490, 139, 139, 73, 79, 139, 142, 169],
     [170, 171, 140, 139, 139, 1, 74, 75],
     [76, 77, 78, 1, 1, 139, 7490, 139],
     [139, 139, 73, 79, 7495, 137, 7496, 137],
     [7497, 137, 137, 137, 140, 7498, 7499, 7500],
     [172, 172, 7495, 7498, 7499, 7500, 7495, 1],
     [74, 75, 76, 77, 78, 1, 1, 7495],
     [7495, 7495, 73, 73, 79, 73, 73, 137],
     [7502, 137, 7503, 7504, 73, 7505, 181, 7506],
     [140, 73, 73, 73, 1, 73, 74, 75],
     [76, 77, 78, 1, 177, 73, 7501, 79],
     [1, 74, 75, 76, 77, 78, 1, 1],
     [7507, 7507, 7507, 73, 79, 1, 74, 75],
     [76, 77, 78, 1, 1, 7501, 7501, 7501],
     [73, 79, 7503, 7508, 139, 177, 177, 179],
     [7509, 181, 182, 140, 177, 177, 7503, 7503],
     [1, 74, 75, 76, 77, 78, 1, 1],
     [7503, 7503, 7503, 73, 79, 1, 74, 75],
     [76, 77, 78, 1, 1, 7510, 7510, 7510],
     [73, 79, 1, 74, 75, 76, 77, 78],
     [1, 1, 7503, 7503, 7503, 73, 79, 7511],
     [7512, 139, 184, 184, 179, 7513, 181, 182],
     [140, 184, 184, 7511, 7511, 1, 74, 75],
     [76, 77, 78, 1, 1, 7511, 7511, 7511],
     [73, 79, 7514, 7515, 139, 187, 187, 189],
     [139, 190, 191, 140, 187, 187, 7514, 7514],
     [1, 74, 75, 76, 77, 78, 1, 1],
     [7514, 7514, 7514, 73, 79, 1, 74, 75],
     [76, 77, 78, 1, 1, 7516, 7516, 7516],
     [73, 79, 1, 74, 75, 76, 77, 78],
     [1, 1, 7514, 7514, 7514, 73, 79, 7511],
     [7512, 139, 184, 184, 139, 140, 184, 184],
     [7511, 7511, 1, 74, 75, 76, 77, 78],
     [1, 1, 7511, 7511, 7511, 73, 73, 79],
     [73, 73, 137, 7518, 137, 7511, 7504, 73],
     [7519, 181, 7506, 140, 73, 73, 73, 1],
     [73, 74, 75, 76, 77, 78, 1, 184],
     [73, 7517, 73, 79, 73, 73, 137, 7521],
     [137, 7514, 7522, 73, 137, 190, 7523, 140],
     [73, 73, 73, 1, 73, 74, 75, 76],
     [77, 78, 1, 187, 73, 7520, 79, 1],
     [74, 75, 76, 77, 78, 1, 1, 7524],
     [7524, 7524, 73, 79, 1, 74, 75, 76],
     [77, 78, 1, 1, 7520, 7520, 7520, 73],
     [73, 79, 73, 73, 137, 7526, 137, 137],
     [7527, 73, 73, 140, 73, 73, 73, 1],
     [73, 74, 75, 76, 77, 78, 1, 137],
     [7190, 73, 7525, 73, 79, 73, 73, 137],
     [7526, 137, 137, 7527, 137, 7528, 140, 73],
     [73, 73, 1, 73, 74, 75, 76, 77],
     [78, 1, 73, 7190, 73, 7525, 79, 1],
     [74, 75, 76, 77, 78, 1, 1, 7529],
     [7529, 7529, 73, 79, 1, 74, 75, 76],
     [77, 78, 1, 1, 7525, 7525, 7525, 73],
     [79, 7527, 7530, 139, 139, 7190, 7190, 7531],
     [7190, 140, 7190, 7190, 7527, 7527, 1, 74],
     [75, 76, 77, 78, 1, 1, 7527, 7527],
     [7527, 73, 79, 1, 74, 75, 76, 77],
     [78, 1, 1, 7532, 7532, 7532, 73, 79],
     [1, 74, 75, 76, 77, 78, 1, 1],
     [7527, 7527, 7527, 73, 79, 7531, 7533, 7534],
     [139, 7192, 7192, 139, 7196, 7192, 140, 7192],
     [7192, 7531, 7531, 1, 74, 75, 76, 77],
     [78, 1, 1, 7531, 7531, 7531, 73, 79],
     [1, 74, 75, 76, 77, 78, 1, 1],
     [7535, 7535, 7535, 73, 79, 1, 74, 75],
     [76, 77, 78, 1, 1, 7531, 7531, 7531],
     [73, 79, 7527, 7530, 139, 139, 7190, 7190],
     [139, 7190, 140, 7190, 7190, 7527, 7527, 1],
     [74, 75, 76, 77, 78, 1, 1, 7527],
     [7527, 7527, 73, 73, 79, 73, 73, 137],
     [7536, 7537, 137, 7531, 73, 7196, 140, 73],
     [73, 73, 1, 73, 74, 75, 76, 77],
     [78, 1, 137, 7192, 73, 7528, 79, 1],
     [74, 75, 76, 77, 78, 1, 1, 7538],
     [7538, 7538, 73, 79, 1, 74, 75, 76],
     [77, 78, 1, 1, 7528, 7528, 7528, 73],
     [73, 79, 73, 73, 137, 7518, 137, 7511],
     [73, 73, 140, 73, 73, 73, 1, 73],
     [74, 75, 76, 77, 78, 1, 137, 184],
     [73, 7517, 79, 7501, 137, 7502, 137, 7503]]"

definition smp_indicies_50 :: "int list list" where
  "smp_indicies_50 =
    [[7504, 7505, 181, 7506, 140, 7539, 177, 177],
     [7501, 7539, 7501, 1, 74, 75, 76, 77],
     [78, 1, 1, 7501, 7501, 7501, 73, 73],
     [79, 73, 73, 137, 7502, 137, 7503, 7540],
     [73, 7541, 7201, 7542, 140, 73, 73, 73],
     [1, 73, 74, 75, 76, 77, 78, 1],
     [177, 73, 7501, 79, 7543, 137, 7544, 7543],
     [137, 7517, 7511, 7504, 7519, 181, 7506, 140],
     [184, 184, 7205, 7543, 1, 74, 75, 76],
     [77, 78, 1, 1, 7517, 7543, 7543, 7543],
     [73, 79, 7545, 137, 7546, 7545, 137, 7520],
     [7514, 7522, 137, 190, 7523, 140, 187, 187],
     [7205, 7545, 1, 74, 75, 76, 77, 78],
     [1, 1, 7520, 7545, 7545, 7545, 73, 79],
     [7205, 7205, 7205, 7209, 7210, 7211, 7205, 1],
     [74, 75, 76, 77, 78, 1, 1, 7205],
     [7205, 7547, 7547, 7205, 7205, 7547, 7205, 73],
     [79, 7205, 7205, 7205, 7209, 7210, 7211, 7205],
     [1, 74, 75, 76, 77, 78, 1, 1],
     [7205, 7205, 7545, 7545, 7205, 7205, 7545, 7205],
     [73, 79, 7501, 137, 7502, 137, 7503, 7504],
     [7505, 181, 7506, 140, 7548, 7549, 177, 177],
     [7501, 7548, 7549, 7501, 1, 74, 75, 76],
     [77, 78, 1, 1, 7501, 7501, 7501, 73],
     [73, 79, 73, 73, 137, 7502, 137, 7503],
     [7550, 73, 7551, 7216, 7552, 140, 73, 73],
     [73, 1, 73, 74, 75, 76, 77, 78],
     [1, 177, 73, 7501, 79, 7501, 137, 7502],
     [137, 7503, 7504, 7505, 181, 7506, 140, 7553],
     [177, 177, 7501, 7553, 7501, 1, 74, 75],
     [76, 77, 78, 1, 1, 7501, 7501, 7501],
     [73, 79, 7501, 137, 7502, 137, 7503, 7504],
     [7505, 181, 7506, 140, 7554, 177, 177, 7501],
     [7554, 7501, 1, 74, 75, 76, 77, 78],
     [1, 1, 7501, 7501, 7501, 73, 73, 79],
     [73, 73, 137, 7502, 137, 7503, 7504, 73],
     [7555, 181, 7506, 140, 73, 73, 73, 1],
     [73, 74, 75, 76, 77, 78, 1, 177],
     [73, 7501, 79, 7556, 137, 7557, 7556, 137],
     [7517, 7511, 7504, 7519, 181, 7506, 140, 184],
     [184, 7223, 7556, 1, 74, 75, 76, 77],
     [78, 1, 1, 7517, 7556, 7556, 7556, 73],
     [79, 7558, 137, 7559, 7558, 137, 7520, 7514],
     [7560, 137, 7227, 7561, 140, 187, 187, 7229],
     [7558, 1, 74, 75, 76, 77, 78, 1],
     [1, 7520, 7558, 7558, 7558, 73, 79, 7229],
     [7229, 7229, 7231, 7232, 7233, 7229, 1, 74],
     [75, 76, 77, 78, 1, 1, 7229, 7229],
     [7562, 7562, 7229, 7229, 7562, 7229, 73, 79],
     [7229, 7229, 7229, 7231, 7232, 7233, 7229, 1],
     [74, 75, 76, 77, 78, 1, 1, 7229],
     [7229, 7558, 7558, 7229, 7229, 7558, 7229, 73],
     [79, 7501, 137, 7502, 137, 7503, 7504, 7505],
     [181, 7506, 140, 7563, 177, 177, 7501, 7563],
     [7501, 1, 74, 75, 76, 77, 78, 1],
     [1, 7501, 7501, 7501, 73, 79, 7501, 137],
     [7502, 137, 7503, 7504, 7505, 181, 7506, 140],
     [7564, 177, 177, 7501, 7564, 7501, 1, 74],
     [75, 76, 77, 78, 1, 1, 7501, 7501],
     [7501, 73, 79, 7501, 137, 7502, 137, 7503],
     [7504, 7505, 181, 7506, 140, 7565, 177, 177],
     [7501, 7565, 7501, 1, 74, 75, 76, 77],
     [78, 1, 1, 7501, 7501, 7501, 73, 79],
     [7501, 137, 7502, 137, 7503, 7504, 7505, 181],
     [7506, 140, 7566, 177, 177, 7501, 7566, 7501],
     [1, 74, 75, 76, 77, 78, 1, 1],
     [7501, 7501, 7501, 73, 79, 7501, 137, 7502],
     [137, 7503, 7504, 7505, 181, 7506, 140, 7567],
     [177, 177, 7501, 7567, 7501, 1, 74, 75],
     [76, 77, 78, 1, 1, 7501, 7501, 7501],
     [73, 79, 7501, 137, 7502, 137, 7503, 7504],
     [7505, 181, 7506, 140, 7568, 177, 177, 7501],
     [7568, 7501, 1, 74, 75, 76, 77, 78],
     [1, 1, 7501, 7501, 7501, 73, 79, 7501],
     [137, 7502, 137, 7503, 7504, 7505, 181, 7506],
     [140, 7569, 177, 177, 7501, 7569, 7501, 1],
     [74, 75, 76, 77, 78, 1, 1, 7501],
     [7501, 7501, 73, 79, 7501, 137, 7502, 137],
     [7503, 7504, 7505, 181, 7506, 140, 7570, 177],
     [177, 7501, 7570, 7501, 1, 74, 75, 76],
     [77, 78, 1, 1, 7501, 7501, 7501, 73],
     [73, 79, 73, 73, 137, 7502, 137, 7503],
     [7504, 73, 7571, 181, 7506, 140, 73, 73],
     [73, 1, 73, 74, 75, 76, 77, 78],
     [1, 177, 73, 7501, 79, 7572, 137, 7573],
     [7572, 137, 7517, 7511, 7504, 7519, 181, 7506],
     [140, 7574, 7575, 7576, 7577, 184, 184, 7249],
     [7574, 7575, 7576, 7577, 7572, 1, 74, 75],
     [76, 77, 78, 1, 1, 7517, 7572, 7572],
     [7572, 73, 79, 7578, 137, 7579, 7578, 137],
     [7520, 7514, 7580, 137, 7253, 7581, 140, 187],
     [187, 7255, 7578, 1, 74, 75, 76, 77],
     [78, 1, 1, 7520, 7578, 7578, 7578, 73],
     [79, 7255, 7255, 7255, 7257, 7258, 7259, 7255],
     [1, 74, 75, 76, 77, 78, 1, 1],
     [7255, 7255, 7582, 7582, 7255, 7255, 7582, 7255],
     [73, 79, 7255, 7255, 7255, 7257, 7258, 7259],
     [7255, 1, 74, 75, 76, 77, 78, 1],
     [1, 7255, 7255, 7578, 7578, 7255, 7255, 7578],
     [7255, 73, 79, 7578, 137, 7579, 7578, 137],
     [7520, 7514, 7580, 137, 7253, 7581, 140, 7583],
     [187, 187, 7255, 7583, 7578, 1, 74, 75],
     [76, 77, 78, 1, 1, 7520, 7578, 7578],
     [7578, 73, 79, 7578, 137, 7579, 7578, 137],
     [7520, 7514, 7580, 137, 7253, 7581, 140, 7584],
     [187, 187, 7255, 7584, 7578, 1, 74, 75],
     [76, 77, 78, 1, 1, 7520, 7578, 7578],
     [7578, 73, 79, 7578, 137, 7579, 7578, 137],
     [7520, 7514, 7580, 137, 7253, 7581, 140, 7585],
     [187, 187, 7255, 7585, 7578, 1, 74, 75],
     [76, 77, 78, 1, 1, 7520, 7578, 7578],
     [7578, 73, 79, 7578, 137, 7579, 7578, 137],
     [7520, 7514, 7586, 137, 7264, 7587, 140, 187],
     [187, 7255, 7578, 1, 74, 75, 76, 77],
     [78, 1, 1, 7520, 7578, 7578, 7578, 73],
     [79, 7578, 137, 7579, 7578, 137, 7520, 7514],
     [7580, 137, 7253, 7581, 140, 7588, 7589, 187],
     [187, 7255, 7588, 7589, 7578, 1, 74, 75],
     [76, 77, 78, 1, 1, 7520, 7578, 7578],
     [7578, 73, 79, 7578, 137, 7579, 7578, 137],
     [7520, 7514, 7580, 137, 7253, 7581, 140, 7590],
     [187, 187, 7255, 7590, 7578, 1, 74, 75],
     [76, 77, 78, 1, 1, 7520, 7578, 7578],
     [7578, 73, 79, 7578, 137, 7579, 7578, 137],
     [7520, 7514, 7591, 137, 7270, 7592, 140, 187],
     [187, 7255, 7578, 1, 74, 75, 76, 77],
     [78, 1, 1, 7520, 7578, 7578, 7578, 73],
     [79, 7578, 137, 7579, 7578, 137, 7520, 7514],
     [7580, 137, 7253, 7581, 140, 7593, 187, 187],
     [7255, 7593, 7578, 1, 74, 75, 76, 77],
     [78, 1, 1, 7520, 7578, 7578, 7578, 73],
     [79, 7578, 137, 7579, 7578, 137, 7520, 7514],
     [7594, 137, 7274, 7595, 140, 187, 187, 7255],
     [7578, 1, 74, 75, 76, 77, 78, 1],
     [1, 7520, 7578, 7578, 7578, 73, 79, 7578],
     [137, 7579, 7578, 137, 7520, 7514, 7580, 137],
     [7253, 7581, 140, 7596, 187, 187, 7255, 7596],
     [7578, 1, 74, 75, 76, 77, 78, 1],
     [1, 7520, 7578, 7578, 7578, 73, 79, 7578],
     [137, 7579, 7578, 137, 7520, 7514, 7580, 137],
     [7253, 7581, 140, 7597, 187, 187, 7255, 7597],
     [7578, 1, 74, 75, 76, 77, 78, 1],
     [1, 7520, 7578, 7578, 7578, 73, 79, 7578],
     [137, 7579, 7578, 137, 7520, 7514, 7598, 137],
     [7279, 7599, 140, 187, 187, 7255, 7578, 1],
     [74, 75, 76, 77, 78, 1, 1, 7520],
     [7578, 7578, 7578, 73, 79, 7578, 137, 7579],
     [7578, 137, 7520, 7514, 7580, 137, 7253, 7581],
     [140, 7600, 187, 187, 7255, 7600, 7578, 1],
     [74, 75, 76, 77, 78, 1, 1, 7520]]"

definition smp_indicies_51 :: "int list list" where
  "smp_indicies_51 =
    [[7578, 7578, 7578, 73, 79, 7578, 137, 7579],
     [7578, 137, 7520, 7514, 7601, 137, 7283, 7602],
     [140, 7603, 187, 187, 7255, 7603, 7578, 1],
     [74, 75, 76, 77, 78, 1, 1, 7520],
     [7578, 7578, 7578, 73, 79, 7578, 137, 7579],
     [7578, 137, 7520, 7514, 7604, 137, 7287, 7605],
     [140, 187, 187, 7255, 7578, 1, 74, 75],
     [76, 77, 78, 1, 1, 7520, 7578, 7578],
     [7578, 73, 79, 137, 138, 7606, 7607, 7608],
     [139, 137, 137, 137, 140, 137, 137, 1],
     [74, 75, 76, 77, 78, 1, 1, 137],
     [7609, 7476, 7476, 73, 79, 137, 138, 7472],
     [7610, 139, 137, 137, 137, 140, 7472, 137],
     [1, 74, 75, 76, 77, 78, 1, 1],
     [137, 7474, 7474, 7474, 73, 79, 137, 138],
     [7611, 7612, 7613, 139, 137, 137, 137, 140],
     [137, 137, 1, 74, 75, 76, 77, 78],
     [1, 1, 137, 7614, 7476, 7476, 73, 79],
     [137, 138, 7472, 7615, 139, 137, 137, 137],
     [140, 7472, 137, 1, 74, 75, 76, 77],
     [78, 1, 1, 137, 7474, 7474, 7474, 73],
     [79, 137, 138, 7616, 7617, 7618, 139, 137],
     [137, 137, 140, 137, 137, 1, 74, 75],
     [76, 77, 78, 1, 1, 137, 7619, 7476],
     [7476, 73, 79, 137, 138, 7472, 7475, 7620],
     [7621, 137, 7309, 7622, 140, 7472, 137, 1],
     [74, 75, 76, 77, 78, 1, 1, 137],
     [7474, 7474, 7474, 73, 79, 137, 138, 7472],
     [7475, 7620, 7621, 137, 7309, 7622, 140, 7472],
     [137, 1, 74, 75, 76, 77, 78, 1],
     [1, 137, 7619, 7474, 7474, 73, 79, 137],
     [138, 7472, 7475, 7620, 7621, 137, 7309, 7622],
     [140, 7472, 137, 1, 74, 75, 76, 77],
     [78, 1, 1, 137, 7616, 7474, 7474, 73],
     [79, 137, 138, 7472, 7475, 7623, 7620, 7621],
     [137, 7309, 7622, 140, 7472, 137, 1, 74],
     [75, 76, 77, 78, 1, 1, 137, 7619],
     [7616, 7474, 7474, 73, 79, 137, 138, 7472],
     [7475, 7620, 7621, 137, 7309, 7622, 140, 7472],
     [137, 1, 74, 75, 76, 77, 78, 1],
     [1, 137, 7616, 7474, 7474, 7474, 73, 79],
     [137, 138, 7472, 7615, 139, 137, 137, 137],
     [140, 7472, 137, 1, 74, 75, 76, 77],
     [78, 1, 1, 137, 7614, 7474, 7474, 73],
     [79, 137, 138, 7472, 7615, 139, 137, 137],
     [137, 140, 7472, 137, 1, 74, 75, 76],
     [77, 78, 1, 1, 137, 7611, 7474, 7474],
     [73, 79, 137, 138, 7472, 7615, 7624, 139],
     [137, 137, 137, 140, 7472, 137, 1, 74],
     [75, 76, 77, 78, 1, 1, 137, 7614],
     [7611, 7474, 7474, 73, 79, 137, 138, 7472],
     [7615, 139, 137, 137, 137, 140, 7472, 137],
     [1, 74, 75, 76, 77, 78, 1, 1],
     [137, 7611, 7474, 7474, 7474, 73, 79, 137],
     [138, 7472, 7610, 139, 137, 137, 137, 140],
     [7472, 137, 1, 74, 75, 76, 77, 78],
     [1, 1, 137, 7609, 7474, 7474, 73, 79],
     [137, 138, 7472, 7610, 139, 137, 137, 137],
     [140, 7472, 137, 1, 74, 75, 76, 77],
     [78, 1, 1, 137, 7606, 7474, 7474, 73],
     [79, 137, 138, 7472, 7610, 7625, 139, 137],
     [137, 137, 140, 7472, 137, 1, 74, 75],
     [76, 77, 78, 1, 1, 137, 7609, 7606],
     [7474, 7474, 73, 79, 137, 138, 7472, 7610],
     [139, 137, 137, 137, 140, 7472, 137, 1],
     [74, 75, 76, 77, 78, 1, 1, 137],
     [7606, 7474, 7474, 7474, 73, 79, 137, 138],
     [7472, 7473, 139, 137, 137, 137, 140, 7472],
     [137, 1, 74, 75, 76, 77, 78, 1],
     [1, 137, 7626, 7474, 7474, 73, 79, 137],
     [138, 7472, 7473, 139, 137, 137, 137, 140],
     [7472, 137, 1, 74, 75, 76, 77, 78],
     [1, 1, 137, 7627, 7474, 7474, 73, 79],
     [137, 138, 7472, 7473, 7628, 139, 137, 137],
     [137, 140, 7472, 137, 1, 74, 75, 76],
     [77, 78, 1, 1, 137, 7626, 7627, 7474],
     [7474, 73, 79, 137, 138, 7472, 7473, 139],
     [137, 137, 137, 140, 7472, 137, 1, 74],
     [75, 76, 77, 78, 1, 1, 137, 7627],
     [7474, 7474, 7474, 73, 79, 7629, 1, 74],
     [75, 76, 77, 78, 1, 1, 73, 60],
     [60, 61, 61, 61, 62, 7630, 7630, 61],
     [61, 61, 61, 61, 61, 1, 60, 60],
     [61, 61, 61, 62, 7631, 7631, 61, 61],
     [61, 61, 61, 61, 1, 60, 60, 61],
     [61, 61, 7632, 61, 62, 61, 61, 61],
     [61, 61, 1, 60, 60, 61, 61, 61],
     [62, 7633, 7633, 61, 61, 61, 61, 61],
     [61, 1, 60, 60, 61, 61, 61, 62],
     [7634, 7634, 61, 61, 61, 61, 61, 61],
     [1, 60, 60, 61, 61, 61, 62, 7635],
     [7635, 61, 61, 61, 61, 61, 61, 1],
     [60, 60, 61, 61, 61, 62, 7636, 7636],
     [61, 61, 61, 61, 61, 61, 1, 60],
     [60, 61, 61, 61, 62, 7637, 7637, 61],
     [61, 61, 61, 61, 61, 1, 60, 60],
     [61, 61, 61, 62, 7638, 7638, 61, 61],
     [61, 61, 61, 61, 1, 60, 60, 61],
     [61, 61, 62, 7639, 7639, 61, 61, 61],
     [61, 61, 61, 1, 60, 60, 61, 61],
     [61, 62, 7640, 7640, 61, 61, 61, 61],
     [61, 61, 1, 7641, 7641, 61, 61, 61],
     [7642, 61, 61, 61, 61, 61, 61, 1],
     [7643, 7643, 7644, 1, 7644, 7645, 7644, 7646],
     [1, 7647, 1, 7648, 7648, 1, 7648, 7648],
     [7646, 1, 7649, 7650, 7649, 7651, 1, 7652],
     [7653, 7652, 7654, 7654, 7654, 7655, 7656, 7657],
     [7658, 7659, 7660, 7661, 7662, 7663, 7664, 7665],
     [7654, 7666, 7666, 7666, 7666, 7654, 7654, 7654],
     [7654, 7654, 7666, 7666, 7666, 7666, 7666, 1],
     [7667, 1, 7668, 7668, 1, 7668, 7668, 7654],
     [7654, 7654, 7655, 7656, 7657, 7658, 7659, 7660],
     [7661, 7662, 7663, 7664, 7665, 7654, 7666, 7666],
     [7666, 7666, 7654, 7654, 7654, 7654, 7654, 7666],
     [7666, 7666, 7666, 7666, 1, 7669, 7670, 7670],
     [7670, 7670, 7670, 7670, 7670, 7670, 7670, 1],
     [7669, 7670, 7670, 7670, 7671, 7670, 7670, 7670],
     [7670, 7670, 7670, 1, 7669, 7670, 7670, 7670],
     [7672, 7670, 7670, 7670, 7670, 7670, 7670, 1],
     [7673, 7670, 7670, 7670, 7670, 7670, 7670, 7670],
     [7670, 7670, 1, 7669, 7670, 7670, 7670, 7674],
     [7670, 7670, 7670, 7670, 7670, 7670, 1, 7669],
     [7670, 7670, 7670, 7675, 7670, 7670, 7670, 7670],
     [7670, 7670, 1, 7676, 7670, 7670, 7670, 7670],
     [7670, 7670, 7670, 7670, 7670, 1, 7669, 7670],
     [7670, 7670, 7677, 7670, 7670, 7670, 7670, 7670],
     [7670, 1, 7669, 7670, 7670, 7670, 7678, 7670],
     [7670, 7670, 7670, 7670, 7670, 1, 7669, 7670],
     [7670, 7670, 7679, 7670, 7670, 7670, 7670, 7670],
     [7670, 1, 7669, 7670, 7670, 7670, 7680, 7670],
     [7670, 7670, 7670, 7670, 7670, 1, 7669, 7670],
     [7670, 7670, 7681, 7670, 7670, 7670, 7670, 7670],
     [7670, 1, 7682, 7670, 7670, 7670, 7670, 7670],
     [7670, 7670, 7670, 7670, 1, 7669, 7670, 7670],
     [7670, 7683, 7670, 7670, 7670, 7670, 7670, 7670],
     [1, 7669, 7670, 7670, 7670, 7684, 7685, 7670],
     [7670, 7670, 7670, 7670, 7670, 1, 7669, 7670],
     [7670, 7670, 7686, 7670, 7670, 7670, 7670, 7670],
     [7670, 1, 7687, 7670, 7670, 7670, 7670, 7670],
     [7670, 7670, 7670, 7670, 1, 7669, 7670, 7670],
     [7670, 7688, 7670, 7670, 7670, 7670, 7670, 7670],
     [1, 7669, 7670, 7670, 7670, 7689, 7670, 7670],
     [7670, 7670, 7670, 7670, 1, 7669, 7670, 7670],
     [7670, 7690, 7670, 7670, 7670, 7670, 7670, 7670],
     [1, 7691, 7670, 7670, 7670, 7670, 7670, 7670],
     [7670, 7670, 7670, 1, 7669, 7670, 7670, 7670],
     [7692, 7670, 7670, 7670, 7670, 7670, 7670, 1],
     [7669, 7670, 7670, 7670, 7693, 7670, 7670, 7670],
     [7670, 7670, 7670, 1, 7669, 7670, 7670, 7670],
     [7694, 7670, 7670, 7670, 7670, 7670, 7670, 1]]"

definition smp_indicies_52 :: "int list list" where
  "smp_indicies_52 =
    [[7669, 7670, 7670, 7670, 7695, 7670, 7670, 7670],
     [7670, 7670, 7670, 1, 7669, 7670, 7670, 7670],
     [7696, 7670, 7670, 7670, 7670, 7670, 7670, 1],
     [7669, 7670, 7670, 7670, 7697, 7670, 7670, 7670],
     [7670, 7670, 7670, 1, 7698, 7670, 7670, 7670],
     [7670, 7670, 7670, 7670, 7670, 7670, 1, 7669],
     [7670, 7670, 7670, 7699, 7670, 7670, 7670, 7670],
     [7670, 7670, 1, 7669, 7670, 7670, 7670, 7700],
     [7670, 7670, 7670, 7670, 7670, 7670, 1, 7669],
     [7670, 7670, 7670, 7701, 7670, 7670, 7670, 7670],
     [7670, 7670, 1, 7669, 7670, 7670, 7670, 7702],
     [7670, 7670, 7670, 7670, 7670, 7670, 1, 7669],
     [7670, 7670, 7670, 7703, 7670, 7670, 7670, 7670],
     [7670, 7670, 1, 7704, 7670, 7670, 7670, 7670],
     [7670, 7670, 7670, 7670, 7670, 1, 7669, 7670],
     [7670, 7670, 7705, 7670, 7670, 7670, 7670, 7670],
     [7670, 1, 7669, 7670, 7670, 7670, 7706, 7670],
     [7670, 7670, 7670, 7670, 7670, 1, 7669, 7670],
     [7670, 7670, 7707, 7670, 7670, 7670, 7670, 7670],
     [7670, 1, 7669, 7670, 7670, 7670, 7708, 7670],
     [7670, 7670, 7670, 7670, 7670, 1, 7669, 7670],
     [7670, 7670, 7709, 7670, 7670, 7670, 7670, 7670],
     [7670, 1, 7669, 7670, 7670, 7670, 7710, 7670],
     [7670, 7670, 7670, 7670, 7670, 1, 7711, 7670],
     [7670, 7670, 7670, 7670, 7670, 7670, 7670, 7670],
     [1, 7669, 7670, 7670, 7670, 7712, 7713, 7670],
     [7670, 7670, 7670, 7670, 7670, 1, 7669, 7670],
     [7670, 7670, 7714, 7670, 7670, 7670, 7670, 7670],
     [7670, 1, 7669, 7670, 7670, 7670, 7715, 7670],
     [7670, 7670, 7670, 7670, 7670, 1, 7669, 7670],
     [7670, 7670, 7716, 7670, 7670, 7670, 7670, 7670],
     [7670, 1, 7717, 7670, 7670, 7670, 7670, 7670],
     [7670, 7670, 7670, 7670, 1, 7669, 7670, 7670],
     [7670, 7718, 7719, 7720, 7670, 7670, 7670, 7670],
     [7670, 7670, 1, 7669, 7670, 7670, 7670, 7721],
     [7670, 7670, 7670, 7670, 7670, 7670, 1, 7669],
     [7670, 7670, 7670, 7722, 7670, 7670, 7670, 7670],
     [7670, 7670, 1, 7669, 7670, 7670, 7670, 7723],
     [7670, 7670, 7670, 7670, 7670, 7670, 1, 7669],
     [7670, 7670, 7670, 7724, 7670, 7670, 7670, 7670],
     [7670, 7670, 1, 7725, 7670, 7670, 7670, 7670],
     [7670, 7670, 7670, 7670, 7670, 1, 7669, 7670],
     [7670, 7670, 7726, 7670, 7670, 7670, 7670, 7670],
     [7670, 1, 7727, 7670, 7670, 7670, 7670, 7670],
     [7670, 7670, 7670, 7670, 1, 7669, 7670, 7670],
     [7670, 7728, 7670, 7670, 7670, 7670, 7670, 7670],
     [1, 7729, 7670, 7670, 7670, 7670, 7670, 7670],
     [7670, 7670, 7670, 1, 7669, 7670, 7670, 7670],
     [7730, 7670, 7670, 7670, 7670, 7670, 7670, 1],
     [7669, 7670, 7670, 7670, 7731, 7732, 7670, 7670],
     [7670, 7670, 7670, 7670, 1, 7669, 7670, 7670],
     [7670, 7733, 7670, 7670, 7670, 7670, 7670, 7670],
     [1, 7669, 7670, 7670, 7670, 7734, 7670, 7670],
     [7670, 7670, 7670, 7670, 1, 7735, 7670, 7670],
     [7670, 7670, 7670, 7670, 7670, 7670, 7670, 1],
     [7669, 7670, 7670, 7670, 7736, 7670, 7670, 7670],
     [7670, 7670, 7670, 1, 7669, 7670, 7670, 7670],
     [7737, 7670, 7670, 7670, 7670, 7670, 7670, 1],
     [7669, 7670, 7670, 7670, 7738, 7670, 7670, 7670],
     [7670, 7670, 7670, 1, 7669, 7670, 7670, 7670],
     [7739, 7670, 7670, 7670, 7670, 7670, 7670, 1],
     [7669, 7670, 7670, 7670, 7740, 7670, 7670, 7670],
     [7670, 7670, 7670, 1, 7741, 7670, 7670, 7670],
     [7670, 7670, 7670, 7670, 7670, 7670, 1, 7669],
     [7670, 7670, 7670, 7742, 7743, 7670, 7670, 7670],
     [7670, 7670, 7670, 1, 7669, 7670, 7670, 7670],
     [7744, 7670, 7670, 7670, 7670, 7670, 7670, 1],
     [7669, 7670, 7670, 7670, 7745, 7670, 7670, 7670],
     [7670, 7670, 7670, 1, 7669, 7670, 7670, 7670],
     [7746, 7670, 7670, 7670, 7670, 7670, 7670, 1],
     [7747, 7670, 7670, 7670, 7670, 7670, 7670, 7670],
     [7670, 7670, 1, 7669, 7670, 7670, 7670, 7748],
     [7670, 7670, 7670, 7670, 7670, 7670, 1, 7669],
     [7670, 7670, 7670, 7749, 7670, 7670, 7670, 7670],
     [7670, 7670, 1, 7669, 7670, 7670, 7670, 7750],
     [7670, 7670, 7670, 7670, 7670, 7670, 1, 7669],
     [7670, 7670, 7670, 7751, 7670, 7670, 7670, 7670],
     [7670, 7670, 1, 7669, 7670, 7670, 7670, 7752],
     [7670, 7670, 7670, 7670, 7670, 7670, 1, 7669],
     [7670, 7670, 7670, 7753, 7670, 7670, 7670, 7670],
     [7670, 7670, 1, 7669, 7670, 7670, 7670, 7754],
     [7670, 7670, 7670, 7670, 7670, 7670, 1, 7755],
     [7670, 7670, 7670, 7670, 7670, 7670, 7670, 7670],
     [7670, 1, 7669, 7670, 7670, 7670, 7756, 7670],
     [7670, 7670, 7670, 7670, 7670, 1, 7669, 7670],
     [7670, 7670, 7757, 7670, 7670, 7670, 7670, 7670],
     [7670, 1, 7669, 7670, 7670, 7670, 7758, 7670],
     [7670, 7670, 7670, 7670, 7670, 1, 7669, 7670],
     [7670, 7670, 7759, 7670, 7670, 7670, 7670, 7670],
     [7670, 1, 7669, 7670, 7670, 7670, 7760, 7670],
     [7670, 7670, 7670, 7670, 7670, 1, 7761, 7670],
     [7670, 7670, 7670, 7670, 7670, 7670, 7670, 7670],
     [1, 7762, 7666, 7666, 7666, 7666, 7666, 7666],
     [7666, 7666, 7666, 1, 7649, 7650, 7649, 7763],
     [1, 7649, 7650, 7649, 7764, 1, 7649, 7650],
     [7649, 7765, 1, 7649, 7650, 7649, 7766, 1],
     [7649, 7650, 7649, 7767, 1, 7649, 7650, 7649],
     [7768, 1, 7649, 7650, 7649, 7769, 1, 7649],
     [7650, 7649, 7770, 1, 7649, 7650, 7649, 1],
     [7771, 1, 7772, 46, 7772, 47, 47, 47],
     [48, 49, 50, 51, 52, 53, 54, 55],
     [56, 57, 58, 48, 49, 50, 51, 52],
     [53, 54, 55, 56, 57, 58, 47, 47],
     [47, 47, 47, 47, 1, 7773, 7774, 7773],
     [1, 66, 67, 68, 69, 70, 1, 65],
     [43, 1, 40, 1, 36, 36, 1, 26],
     [27, 28, 29, 7775, 27, 7776, 27, 27],
     [27, 27, 27, 1, 28, 7777, 7778, 28],
     [7779, 28, 28, 28, 28, 28, 1, 7780],
     [7780, 7780, 1, 28, 28, 28, 1, 7778],
     [7781, 7778, 7779, 7778, 7778, 7778, 7778, 7778],
     [7778, 1, 7782, 7782, 7782, 1, 7778, 7778],
     [7778, 1, 7783, 7784, 7785, 32, 7786, 7787],
     [7787, 1, 7788, 7789, 7788, 7790, 7790, 7790],
     [1, 7788, 7788, 7790, 7790, 7790, 1, 7788],
     [7791, 7788, 7790, 7790, 7790, 1, 7790, 7787],
     [7787, 1, 26, 7792, 7793, 7794, 31, 7792],
     [7787, 7787, 7787, 1, 7792, 7792, 7787, 7787],
     [7787, 1, 26, 7794, 31, 7790, 7787, 7787],
     [1, 7795, 7797, 7796, 7798, 1, 7799, 7800],
     [1, 7801, 7802, 1, 7803, 1, 26, 31],
     [1, 26, 31, 7804, 31, 31, 31, 31],
     [31, 31, 1, 7805, 7805, 7805, 1, 31],
     [31, 31, 1, 26, 31, 7803, 1, 26],
     [31, 7802, 1, 26, 31, 7798, 1, 26],
     [31, 7800, 1, 26, 7806, 31, 7798, 7800],
     [1, 26, 7807, 31, 7800, 7802, 1, 26],
     [7808, 31, 7802, 7803, 1, 26, 31, 7803],
     [1, 7809, 7810, 7811, 7812, 7787, 7787, 1],
     [7788, 7813, 7788, 7790, 7790, 7790, 1, 7814],
     [7815, 7816, 7817, 7787, 7787, 1, 7788, 7818],
     [7788, 7790, 7790, 7790, 1, 7819, 7820, 7821],
     [7822, 7787, 7787, 1, 26, 7788, 7791, 7794],
     [31, 7788, 7790, 7790, 7790, 1, 26, 7788],
     [7791, 7794, 31, 7788, 7822, 7790, 7790, 1],
     [26, 7788, 7791, 7794, 31, 7788, 7819, 7790],
     [7790, 1, 26, 7788, 7791, 7823, 7794, 31],
     [7788, 7822, 7819, 7790, 7790, 1, 26, 7788],
     [7791, 7794, 31, 7788, 7819, 7790, 7790, 7790],
     [1, 7788, 7818, 7788, 7817, 7790, 7790, 1],
     [7788, 7818, 7788, 7814, 7790, 7790, 1, 7788],
     [7818, 7824, 7788, 7817, 7814, 7790, 7790, 1],
     [7788, 7818, 7788, 7814, 7790, 7790, 7790, 1],
     [7788, 7813, 7788, 7812, 7790, 7790, 1, 7788],
     [7813, 7788, 7809, 7790, 7790, 1, 7788, 7813],
     [7825, 7788, 7812, 7809, 7790, 7790, 1, 7788],
     [7813, 7788, 7809, 7790, 7790, 7790, 1, 7788],
     [7789, 7788, 7786, 7790, 7790, 1, 7788, 7789],
     [7788, 7783, 7790, 7790, 1, 7788, 7789, 7826],
     [7788, 7786, 7783, 7790, 7790, 1, 7788, 7789]]"

definition smp_indicies_53 :: "int list list" where
  "smp_indicies_53 =
    [[7788, 7783, 7790, 7790, 7790, 1, 7828, 7827],
     [7827, 7827, 1, 7830, 7829, 7829, 7829, 1],
     [7830, 7831, 7831, 7831, 1, 7830, 7832, 7832],
     [7832, 1, 7830, 1, 7834, 7833, 7833, 7833],
     [1, 7836, 7835, 7835, 7835, 1, 7836, 7837],
     [7837, 7837, 1, 7836, 7838, 7838, 7838, 1],
     [7836, 1, 7840, 7839, 7839, 7839, 1, 7842],
     [7841, 7841, 7841, 1, 7842, 7843, 7843, 7843],
     [1, 7842, 7844, 7844, 7844, 1, 7842, 1],
     [7846, 7845, 7845, 7845, 1, 7848, 7847, 7847],
     [7847, 1, 7848, 7849, 7849, 7849, 1, 7848],
     [7850, 7850, 7850, 1, 7848, 1, 7852, 7851],
     [7851, 7851, 1, 7854, 7853, 7853, 7853, 1],
     [7854, 7855, 7855, 7855, 1, 7854, 7856, 7856],
     [7856, 1, 7854, 1, 7858, 7857, 7857, 7857],
     [1, 7860, 7859, 7859, 7859, 1, 7860, 7861],
     [7861, 7861, 1, 7860, 7862, 7862, 7862, 1],
     [7860, 1, 7863, 7864, 7865, 7867, 7866, 7868],
     [7868, 1, 7869, 7871, 7870, 7870, 7870, 1],
     [7872, 7873, 7874, 7875, 1, 7876, 1, 7877],
     [7878, 7879, 7880, 1, 7881, 1, 7882, 7883],
     [7884, 7885, 1, 7886, 1, 26, 7794, 31],
     [1, 7886, 7885, 1, 7886, 7882, 1, 7887],
     [7886, 7885, 7882, 1, 7886, 7882, 1, 7881],
     [7880, 1, 7881, 7877, 1, 7881, 7888, 7880],
     [7877, 1, 7881, 7877, 1, 7876, 7875, 1],
     [7876, 7872, 1, 7876, 7889, 7875, 7872, 1],
     [7876, 7872, 1, 7871, 7890, 7890, 7890, 1],
     [7871, 7891, 7891, 7891, 1, 7871, 1, 7882],
     [7892, 7892, 7892, 1, 7886, 7893, 7893, 7893],
     [1, 7886, 7894, 7894, 7894, 1, 7886, 7882],
     [7882, 7882, 1, 7869, 7871, 7895, 7870, 7870],
     [1, 7869, 7871, 7896, 7890, 7890, 1, 7869],
     [7871, 7891, 7891, 7891, 1, 7869, 7897, 7871],
     [7895, 7898, 7870, 7870, 1, 7869, 7871, 7896],
     [7890, 7890, 7890, 1, 7869, 7871, 7890, 7890],
     [7890, 1, 7869, 7871, 7898, 7870, 7870, 1],
     [7886, 7892, 7892, 7892, 1, 7871, 7870, 7870],
     [7870, 1, 7899, 7900, 7901, 7886, 7902, 7903],
     [7903, 1, 7869, 7905, 7886, 7904, 7904, 7904],
     [1, 7905, 7886, 7906, 7906, 7906, 1, 7905],
     [7886, 7907, 7907, 7907, 1, 7905, 7886, 1],
     [7892, 7892, 7892, 1, 7869, 7905, 7886, 7908],
     [7904, 7904, 1, 7869, 7905, 7886, 7909, 7906],
     [7906, 1, 7869, 7905, 7886, 7907, 7907, 7907],
     [1, 7869, 7910, 7905, 7886, 7908, 7911, 7904],
     [7904, 1, 7869, 7905, 7886, 7909, 7906, 7906],
     [7906, 1, 7869, 7905, 7886, 7906, 7906, 7906],
     [1, 7869, 7905, 7886, 7911, 7904, 7904, 1],
     [7905, 7886, 7904, 7904, 7904, 1, 7912, 7913],
     [7914, 7886, 7915, 7916, 7916, 1, 7869, 7918],
     [7886, 7917, 7917, 7917, 1, 7918, 7886, 7919],
     [7919, 7919, 1, 7918, 7886, 7920, 7920, 7920],
     [1, 7918, 7886, 1, 7899, 7900, 7901, 7902],
     [7903, 7903, 1, 7869, 7918, 7886, 7921, 7917],
     [7917, 1, 7869, 7918, 7886, 7922, 7919, 7919],
     [1, 7869, 7918, 7886, 7920, 7920, 7920, 1],
     [7869, 7923, 7918, 7886, 7921, 7924, 7917, 7917],
     [1, 7869, 7918, 7886, 7922, 7919, 7919, 7919],
     [1, 7869, 7918, 7886, 7919, 7919, 7919, 1],
     [7869, 7918, 7886, 7924, 7917, 7917, 1, 7918],
     [7886, 7917, 7917, 7917, 1, 7925, 7926, 7927],
     [7886, 7928, 7929, 7929, 1, 7869, 7931, 7886],
     [7930, 7930, 7930, 1, 7931, 7886, 7932, 7932],
     [7932, 1, 7931, 7886, 7933, 7933, 7933, 1],
     [7931, 7886, 1, 7912, 7913, 7914, 7915, 7916],
     [7916, 1, 7869, 7931, 7886, 7934, 7930, 7930],
     [1, 7869, 7931, 7886, 7935, 7932, 7932, 1],
     [7869, 7931, 7886, 7933, 7933, 7933, 1, 7869],
     [7936, 7931, 7886, 7934, 7937, 7930, 7930, 1],
     [7869, 7931, 7886, 7935, 7932, 7932, 7932, 1],
     [7869, 7931, 7886, 7932, 7932, 7932, 1, 7869],
     [7931, 7886, 7937, 7930, 7930, 1, 7931, 7886],
     [7930, 7930, 7930, 1, 7938, 7939, 7940, 7886],
     [7941, 7942, 7942, 1, 7869, 7944, 7886, 7943],
     [7943, 7943, 1, 7944, 7886, 7945, 7945, 7945],
     [1, 7944, 7886, 7946, 7946, 7946, 1, 7944],
     [7886, 1, 7925, 7926, 7927, 7928, 7929, 7929],
     [1, 7869, 7944, 7886, 7947, 7943, 7943, 1],
     [7869, 7944, 7886, 7948, 7945, 7945, 1, 7869],
     [7944, 7886, 7946, 7946, 7946, 1, 7869, 7949],
     [7944, 7886, 7947, 7950, 7943, 7943, 1, 7869],
     [7944, 7886, 7948, 7945, 7945, 7945, 1, 7869],
     [7944, 7886, 7945, 7945, 7945, 1, 7869, 7944],
     [7886, 7950, 7943, 7943, 1, 7944, 7886, 7943],
     [7943, 7943, 1, 7951, 7952, 7953, 7886, 7954],
     [7955, 7955, 1, 7869, 7957, 7886, 7956, 7956],
     [7956, 1, 7957, 7886, 7958, 7958, 7958, 1],
     [7957, 7886, 7959, 7959, 7959, 1, 7957, 7886],
     [1, 7938, 7939, 7940, 7941, 7942, 7942, 1],
     [7869, 7957, 7886, 7960, 7956, 7956, 1, 7869],
     [7957, 7886, 7961, 7958, 7958, 1, 7869, 7957],
     [7886, 7959, 7959, 7959, 1, 7869, 7962, 7957],
     [7886, 7960, 7963, 7956, 7956, 1, 7869, 7957],
     [7886, 7961, 7958, 7958, 7958, 1, 7869, 7957],
     [7886, 7958, 7958, 7958, 1, 7869, 7957, 7886],
     [7963, 7956, 7956, 1, 7957, 7886, 7956, 7956],
     [7956, 1, 7964, 1, 7965, 7966, 7967, 7886],
     [7968, 7969, 7969, 1, 7869, 7971, 7886, 7970],
     [7970, 7970, 1, 7971, 7886, 7972, 7972, 7972],
     [1, 7971, 7886, 7973, 7973, 7973, 1, 7971],
     [7886, 1, 7951, 7952, 7953, 7954, 7955, 7955],
     [1, 7869, 7971, 7886, 7974, 7970, 7970, 1],
     [7869, 7971, 7886, 7975, 7972, 7972, 1, 7869],
     [7971, 7886, 7973, 7973, 7973, 1, 7869, 7976],
     [7971, 7886, 7974, 7977, 7970, 7970, 1, 7869],
     [7971, 7886, 7975, 7972, 7972, 7972, 1, 7869],
     [7971, 7886, 7972, 7972, 7972, 1, 7869, 7971],
     [7886, 7977, 7970, 7970, 1, 7971, 7886, 7970],
     [7970, 7970, 1, 7978, 7978, 7978, 1, 27],
     [27, 27, 1, 26, 7775, 7979, 31, 7775],
     [31, 7776, 7775, 7775, 7775, 31, 7775, 7775],
     [1, 7980, 7980, 7980, 1, 7775, 7775, 7775],
     [1, 26, 31, 7804, 31, 32, 31, 31],
     [31, 31, 31, 1, 26, 27, 28, 29],
     [7981, 7775, 27, 7776, 27, 27, 27, 27],
     [27, 1, 26, 7982, 7983, 7984, 7775, 7982],
     [7776, 7985, 7982, 7982, 7982, 7982, 7982, 1],
     [26, 7982, 7983, 7984, 7986, 7982, 7987, 7982],
     [7982, 7982, 7982, 7982, 1, 7983, 7988, 7989],
     [7983, 7990, 7983, 7983, 7983, 7983, 7983, 1],
     [7991, 7991, 7991, 1, 7983, 7983, 7983, 1],
     [7989, 7992, 7989, 7990, 7989, 7989, 7989, 7989],
     [7989, 7989, 1, 7993, 7993, 7993, 1, 7989],
     [7989, 7989, 1, 7994, 7995, 7996, 7985, 7997],
     [7998, 7998, 1, 7999, 8000, 7999, 8001, 8001],
     [8001, 1, 7999, 7999, 8001, 8001, 8001, 1],
     [7999, 8002, 7999, 8001, 8001, 8001, 1, 8001],
     [7998, 7998, 1, 26, 8003, 8004, 31, 8005],
     [31, 8003, 7998, 7998, 7998, 1, 8003, 8003],
     [7998, 7998, 7998, 1, 26, 31, 8005, 31],
     [8001, 7998, 7998, 1, 8006, 8008, 8007, 8009],
     [1, 8010, 8011, 1, 8012, 8013, 1, 8014],
     [1, 26, 31, 31, 1, 26, 31, 31],
     [8014, 1, 26, 31, 31, 8013, 1, 26],
     [31, 31, 8009, 1, 26, 31, 31, 8011],
     [1, 26, 31, 8015, 31, 8009, 8011, 1],
     [26, 31, 8016, 31, 8011, 8013, 1, 26],
     [31, 8017, 31, 8013, 8014, 1, 26, 31],
     [31, 8014, 1, 8018, 8019, 8020, 8021, 7998],
     [7998, 1, 7999, 8022, 7999, 8001, 8001, 8001],
     [1, 8023, 8024, 8025, 8026, 7998, 7998, 1],
     [7999, 8027, 7999, 8001, 8001, 8001, 1, 8028],
     [8029, 8030, 8031, 7998, 7998, 1, 26, 7999],
     [8002, 31, 8005, 31, 7999, 8001, 8001, 8001],
     [1, 26, 7999, 8002, 31, 8005, 31, 7999],
     [8031, 8001, 8001, 1, 26, 7999, 8002, 31],
     [8005, 31, 7999, 8028, 8001, 8001, 1, 26],
     [7999, 8002, 31, 8032, 8005, 31, 7999, 8031],
     [8028, 8001, 8001, 1, 26, 7999, 8002, 31]]"

definition smp_indicies_54 :: "int list list" where
  "smp_indicies_54 =
    [[8005, 31, 7999, 8028, 8001, 8001, 8001, 1],
     [7999, 8027, 7999, 8026, 8001, 8001, 1, 7999],
     [8027, 7999, 8023, 8001, 8001, 1, 7999, 8027],
     [8033, 7999, 8026, 8023, 8001, 8001, 1, 7999],
     [8027, 7999, 8023, 8001, 8001, 8001, 1, 7999],
     [8022, 7999, 8021, 8001, 8001, 1, 7999, 8022],
     [7999, 8018, 8001, 8001, 1, 7999, 8022, 8034],
     [7999, 8021, 8018, 8001, 8001, 1, 7999, 8022],
     [7999, 8018, 8001, 8001, 8001, 1, 7999, 8000],
     [7999, 7997, 8001, 8001, 1, 7999, 8000, 7999],
     [7994, 8001, 8001, 1, 7999, 8000, 8035, 7999],
     [7997, 7994, 8001, 8001, 1, 7999, 8000, 7999],
     [7994, 8001, 8001, 8001, 1, 8037, 8036, 8036],
     [8036, 1, 8039, 8038, 8038, 8038, 1, 8039],
     [8040, 8040, 8040, 1, 8039, 8041, 8041, 8041],
     [1, 8039, 1, 8043, 8042, 8042, 8042, 1],
     [8045, 8044, 8044, 8044, 1, 8045, 8046, 8046],
     [8046, 1, 8045, 8047, 8047, 8047, 1, 8045],
     [1, 8049, 8048, 8048, 8048, 1, 8051, 8050],
     [8050, 8050, 1, 8051, 8052, 8052, 8052, 1],
     [8051, 8053, 8053, 8053, 1, 8051, 1, 8055],
     [8054, 8054, 8054, 1, 8057, 8056, 8056, 8056],
     [1, 8057, 8058, 8058, 8058, 1, 8057, 8059],
     [8059, 8059, 1, 8057, 1, 8061, 8060, 8060],
     [8060, 1, 8063, 8062, 8062, 8062, 1, 8063],
     [8064, 8064, 8064, 1, 8063, 8065, 8065, 8065],
     [1, 8063, 1, 8067, 8066, 8066, 8066, 1],
     [8069, 8068, 8068, 8068, 1, 8069, 8070, 8070],
     [8070, 1, 8069, 8071, 8071, 8071, 1, 8069],
     [1, 8072, 8073, 8074, 8076, 8075, 8077, 8077],
     [1, 8078, 8080, 8079, 8079, 8079, 1, 8081],
     [8082, 8083, 8084, 1, 8085, 1, 8086, 8087],
     [8088, 8089, 1, 8090, 1, 8091, 8092, 8093],
     [8094, 1, 8095, 1, 26, 31, 8005, 31],
     [1, 8095, 8094, 1, 8095, 8091, 1, 8096],
     [8095, 8094, 8091, 1, 8095, 8091, 1, 8090],
     [8089, 1, 8090, 8086, 1, 8090, 8097, 8089],
     [8086, 1, 8090, 8086, 1, 8085, 8084, 1],
     [8085, 8081, 1, 8085, 8098, 8084, 8081, 1],
     [8085, 8081, 1, 8080, 8099, 8099, 8099, 1],
     [8080, 8100, 8100, 8100, 1, 8080, 1, 8091],
     [8101, 8101, 8101, 1, 8095, 8102, 8102, 8102],
     [1, 8095, 8103, 8103, 8103, 1, 8095, 8091],
     [8091, 8091, 1, 8078, 8080, 8104, 8079, 8079],
     [1, 8078, 8080, 8105, 8099, 8099, 1, 8078],
     [8080, 8100, 8100, 8100, 1, 8078, 8106, 8080],
     [8104, 8107, 8079, 8079, 1, 8078, 8080, 8105],
     [8099, 8099, 8099, 1, 8078, 8080, 8099, 8099],
     [8099, 1, 8078, 8080, 8107, 8079, 8079, 1],
     [8095, 8101, 8101, 8101, 1, 8080, 8079, 8079],
     [8079, 1, 8108, 8109, 8110, 8095, 8111, 8112],
     [8112, 1, 8078, 8114, 8095, 8113, 8113, 8113],
     [1, 8114, 8095, 8115, 8115, 8115, 1, 8114],
     [8095, 8116, 8116, 8116, 1, 8114, 8095, 1],
     [8101, 8101, 8101, 1, 8078, 8114, 8095, 8117],
     [8113, 8113, 1, 8078, 8114, 8095, 8118, 8115],
     [8115, 1, 8078, 8114, 8095, 8116, 8116, 8116],
     [1, 8078, 8119, 8114, 8095, 8117, 8120, 8113],
     [8113, 1, 8078, 8114, 8095, 8118, 8115, 8115],
     [8115, 1, 8078, 8114, 8095, 8115, 8115, 8115],
     [1, 8078, 8114, 8095, 8120, 8113, 8113, 1],
     [8114, 8095, 8113, 8113, 8113, 1, 8121, 8122],
     [8123, 8095, 8124, 8125, 8125, 1, 8078, 8127],
     [8095, 8126, 8126, 8126, 1, 8127, 8095, 8128],
     [8128, 8128, 1, 8127, 8095, 8129, 8129, 8129],
     [1, 8127, 8095, 1, 8108, 8109, 8110, 8111],
     [8112, 8112, 1, 8078, 8127, 8095, 8130, 8126],
     [8126, 1, 8078, 8127, 8095, 8131, 8128, 8128],
     [1, 8078, 8127, 8095, 8129, 8129, 8129, 1],
     [8078, 8132, 8127, 8095, 8130, 8133, 8126, 8126],
     [1, 8078, 8127, 8095, 8131, 8128, 8128, 8128],
     [1, 8078, 8127, 8095, 8128, 8128, 8128, 1],
     [8078, 8127, 8095, 8133, 8126, 8126, 1, 8127],
     [8095, 8126, 8126, 8126, 1, 8134, 8135, 8136],
     [8095, 8137, 8138, 8138, 1, 8078, 8140, 8095],
     [8139, 8139, 8139, 1, 8140, 8095, 8141, 8141],
     [8141, 1, 8140, 8095, 8142, 8142, 8142, 1],
     [8140, 8095, 1, 8121, 8122, 8123, 8124, 8125],
     [8125, 1, 8078, 8140, 8095, 8143, 8139, 8139],
     [1, 8078, 8140, 8095, 8144, 8141, 8141, 1],
     [8078, 8140, 8095, 8142, 8142, 8142, 1, 8078],
     [8145, 8140, 8095, 8143, 8146, 8139, 8139, 1],
     [8078, 8140, 8095, 8144, 8141, 8141, 8141, 1],
     [8078, 8140, 8095, 8141, 8141, 8141, 1, 8078],
     [8140, 8095, 8146, 8139, 8139, 1, 8140, 8095],
     [8139, 8139, 8139, 1, 8147, 8148, 8149, 8095],
     [8150, 8151, 8151, 1, 8078, 8153, 8095, 8152],
     [8152, 8152, 1, 8153, 8095, 8154, 8154, 8154],
     [1, 8153, 8095, 8155, 8155, 8155, 1, 8153],
     [8095, 1, 8134, 8135, 8136, 8137, 8138, 8138],
     [1, 8078, 8153, 8095, 8156, 8152, 8152, 1],
     [8078, 8153, 8095, 8157, 8154, 8154, 1, 8078],
     [8153, 8095, 8155, 8155, 8155, 1, 8078, 8158],
     [8153, 8095, 8156, 8159, 8152, 8152, 1, 8078],
     [8153, 8095, 8157, 8154, 8154, 8154, 1, 8078],
     [8153, 8095, 8154, 8154, 8154, 1, 8078, 8153],
     [8095, 8159, 8152, 8152, 1, 8153, 8095, 8152],
     [8152, 8152, 1, 8160, 8161, 8162, 8095, 8163],
     [8164, 8164, 1, 8078, 8166, 8095, 8165, 8165],
     [8165, 1, 8166, 8095, 8167, 8167, 8167, 1],
     [8166, 8095, 8168, 8168, 8168, 1, 8166, 8095],
     [1, 8147, 8148, 8149, 8150, 8151, 8151, 1],
     [8078, 8166, 8095, 8169, 8165, 8165, 1, 8078],
     [8166, 8095, 8170, 8167, 8167, 1, 8078, 8166],
     [8095, 8168, 8168, 8168, 1, 8078, 8171, 8166],
     [8095, 8169, 8172, 8165, 8165, 1, 8078, 8166],
     [8095, 8170, 8167, 8167, 8167, 1, 8078, 8166],
     [8095, 8167, 8167, 8167, 1, 8078, 8166, 8095],
     [8172, 8165, 8165, 1, 8166, 8095, 8165, 8165],
     [8165, 1, 8173, 1, 8174, 8175, 8176, 8095],
     [8177, 8178, 8178, 1, 8078, 8180, 8095, 8179],
     [8179, 8179, 1, 8180, 8095, 8181, 8181, 8181],
     [1, 8180, 8095, 8182, 8182, 8182, 1, 8180],
     [8095, 1, 8160, 8161, 8162, 8163, 8164, 8164],
     [1, 8078, 8180, 8095, 8183, 8179, 8179, 1],
     [8078, 8180, 8095, 8184, 8181, 8181, 1, 8078],
     [8180, 8095, 8182, 8182, 8182, 1, 8078, 8185],
     [8180, 8095, 8183, 8186, 8179, 8179, 1, 8078],
     [8180, 8095, 8184, 8181, 8181, 8181, 1, 8078],
     [8180, 8095, 8181, 8181, 8181, 1, 8078, 8180],
     [8095, 8186, 8179, 8179, 1, 8180, 8095, 8179],
     [8179, 8179, 1, 8187, 8187, 8187, 1, 7982],
     [7982, 7982, 1, 26, 7986, 8188, 31, 7986],
     [31, 7987, 7986, 7986, 7986, 31, 7986, 7986],
     [1, 8189, 8189, 8189, 1, 7986, 7986, 7986],
     [1, 26, 31, 7804, 31, 7985, 31, 31],
     [31, 31, 31, 1, 24, 25, 8190, 8190],
     [24, 24, 24, 24, 1, 24, 25, 8191],
     [8191, 24, 24, 24, 24, 1, 24, 8192],
     [8193, 8193, 24, 24, 24, 24, 1, 8194],
     [8195, 8196, 8197, 8198, 8194, 8194, 8194, 8201],
     [8194, 8194, 8194, 8199, 8200, 8200, 1, 8202],
     [8203, 8204, 8202, 8205, 8202, 8202, 8202, 8202],
     [8202, 1, 8206, 8206, 8206, 1, 8202, 8202],
     [8202, 1, 8204, 8207, 8204, 8205, 8204, 8204],
     [8204, 8204, 8204, 8204, 1, 8208, 8208, 8208],
     [1, 8204, 8204, 8204, 1, 8209, 8210, 8211],
     [8201, 8212, 8213, 8213, 1, 8214, 8215, 8214],
     [8216, 8216, 8216, 1, 8214, 8214, 8216, 8216],
     [8216, 1, 8214, 8217, 8214, 8216, 8216, 8216],
     [1, 8216, 8218, 8218, 1, 8219, 8220, 8221],
     [8222, 8223, 8224, 8220, 8218, 8218, 8218, 1],
     [8220, 8220, 8218, 8218, 8218, 1, 8219, 8222],
     [8223, 8224, 8216, 8218, 8218, 1, 8225, 8227],
     [8226, 8228, 1, 8229, 8230, 1, 8231, 8232],
     [1, 8233, 1, 8234, 8235, 8236, 1, 8237],
     [8238, 8239, 8240, 8241, 8237, 8237, 8239, 8240],
     [8241, 8237, 8237, 8237, 8237, 8237, 1, 8242],
     [8243, 8244, 8245, 8246, 8247, 8243, 8243, 8243],
     [8243, 8243, 8243, 8243, 1, 8248, 8248, 8248]]"

definition smp_indicies_55 :: "int list list" where
  "smp_indicies_55 =
    [[1, 8243, 8243, 8243, 1, 8242, 8249, 8250],
     [8245, 8251, 8247, 8249, 8249, 8249, 8249, 8249],
     [8249, 8249, 1, 8252, 8253, 8254, 8255, 8256],
     [8253, 8253, 8253, 8253, 8253, 8253, 8253, 1],
     [8257, 8257, 8257, 1, 8253, 8253, 8253, 1],
     [8258, 8258, 8259, 8258, 8258, 8258, 8258, 8258],
     [8258, 8258, 8258, 1, 8258, 8258, 8259, 8260],
     [8258, 8258, 8258, 8258, 8258, 8258, 8258, 8258],
     [1, 8261, 8261, 8261, 1, 8258, 8258, 8258],
     [1, 8262, 8260, 8263, 8264, 8260, 8260, 8260],
     [8260, 8260, 8260, 8260, 8260, 1, 8265, 8265],
     [8265, 1, 8260, 8260, 8260, 1, 8249, 8250],
     [8249, 8249, 8249, 8249, 8249, 8249, 8249, 1],
     [8242, 8243, 8244, 8245, 8246, 8247, 8266, 8243],
     [8243, 8266, 8243, 8243, 8243, 8243, 8243, 1],
     [8267, 8243, 8244, 8268, 8269, 8270, 8243, 8243],
     [8243, 8243, 8243, 8243, 8243, 1, 8242, 8271],
     [8272, 8271, 8249, 8249, 8245, 8251, 8247, 8249],
     [8249, 8273, 8271, 8249, 8271, 8271, 8271, 8271],
     [1, 8252, 8274, 8275, 8274, 8253, 8253, 8255],
     [8256, 8253, 8253, 8273, 8274, 8253, 8274, 8274],
     [8274, 8274, 1, 26, 8273, 8273, 8273, 8277],
     [8278, 8273, 8273, 8273, 8276, 8276, 8273, 8273],
     [8276, 8273, 1, 26, 8273, 8273, 8273, 8277],
     [8278, 8273, 8273, 8273, 8273, 8273, 8273, 1],
     [26, 8273, 8273, 8273, 8277, 8278, 8273, 8273],
     [8273, 8274, 8274, 8273, 8273, 8274, 8273, 1],
     [8242, 8243, 8244, 8245, 8246, 8247, 8279, 8280],
     [8243, 8243, 8279, 8280, 8243, 8243, 8243, 8243],
     [8243, 1, 8281, 8243, 8244, 8282, 8283, 8284],
     [8243, 8243, 8243, 8243, 8243, 8243, 8243, 1],
     [8242, 8243, 8244, 8245, 8246, 8247, 8285, 8243],
     [8243, 8285, 8243, 8243, 8243, 8243, 8243, 1],
     [8242, 8243, 8244, 8245, 8246, 8247, 8286, 8243],
     [8243, 8286, 8243, 8243, 8243, 8243, 8243, 1],
     [8242, 8243, 8244, 8245, 8287, 8247, 8243, 8243],
     [8243, 8243, 8243, 8243, 8243, 1, 8242, 8288],
     [8289, 8288, 8249, 8249, 8245, 8251, 8247, 8249],
     [8249, 8290, 8288, 8249, 8288, 8288, 8288, 8288],
     [1, 8291, 8292, 8293, 8292, 8253, 8253, 8294],
     [8295, 8253, 8253, 8296, 8292, 8253, 8292, 8292],
     [8292, 8292, 1, 8297, 8296, 8296, 8296, 8299],
     [8300, 8296, 8296, 8296, 8298, 8298, 8296, 8296],
     [8298, 8296, 1, 8297, 8296, 8296, 8296, 8299],
     [8300, 8296, 8296, 8296, 8296, 8296, 8296, 1],
     [8297, 8296, 8296, 8296, 8299, 8300, 8296, 8296],
     [8296, 8292, 8292, 8296, 8296, 8292, 8296, 1],
     [8242, 8243, 8244, 8245, 8246, 8247, 8301, 8243],
     [8243, 8301, 8243, 8243, 8243, 8243, 8243, 1],
     [8242, 8243, 8244, 8245, 8246, 8247, 8302, 8243],
     [8243, 8302, 8243, 8243, 8243, 8243, 8243, 1],
     [8242, 8243, 8244, 8245, 8246, 8247, 8303, 8243],
     [8243, 8303, 8243, 8243, 8243, 8243, 8243, 1],
     [8242, 8243, 8244, 8245, 8246, 8247, 8304, 8243],
     [8243, 8304, 8243, 8243, 8243, 8243, 8243, 1],
     [8242, 8243, 8244, 8245, 8246, 8247, 8305, 8243],
     [8243, 8305, 8243, 8243, 8243, 8243, 8243, 1],
     [8242, 8243, 8244, 8245, 8246, 8247, 8306, 8243],
     [8243, 8306, 8243, 8243, 8243, 8243, 8243, 1],
     [8242, 8243, 8244, 8245, 8246, 8247, 8307, 8243],
     [8243, 8307, 8243, 8243, 8243, 8243, 8243, 1],
     [8242, 8243, 8244, 8245, 8246, 8247, 8308, 8243],
     [8243, 8308, 8243, 8243, 8243, 8243, 8243, 1],
     [8242, 8243, 8244, 8245, 8309, 8247, 8243, 8243],
     [8243, 8243, 8243, 8243, 8243, 1, 8242, 8310],
     [8311, 8310, 8249, 8249, 8245, 8251, 8247, 8312],
     [8313, 8314, 8315, 8249, 8249, 8316, 8312, 8313],
     [8314, 8315, 8310, 8249, 8310, 8310, 8310, 8310],
     [1, 8317, 8318, 8319, 8318, 8253, 8253, 8320],
     [8321, 8253, 8253, 8322, 8318, 8253, 8318, 8318],
     [8318, 8318, 1, 8323, 8322, 8322, 8322, 8325],
     [8326, 8322, 8322, 8322, 8324, 8324, 8322, 8322],
     [8324, 8322, 1, 8323, 8322, 8322, 8322, 8325],
     [8326, 8322, 8322, 8322, 8322, 8322, 8322, 1],
     [8323, 8322, 8322, 8322, 8325, 8326, 8322, 8322],
     [8322, 8318, 8318, 8322, 8322, 8318, 8322, 1],
     [8317, 8318, 8319, 8318, 8253, 8253, 8320, 8321],
     [8327, 8253, 8253, 8322, 8327, 8318, 8253, 8318],
     [8318, 8318, 8318, 1, 8317, 8318, 8319, 8318],
     [8253, 8253, 8320, 8321, 8328, 8253, 8253, 8322],
     [8328, 8318, 8253, 8318, 8318, 8318, 8318, 1],
     [8317, 8318, 8319, 8318, 8253, 8253, 8320, 8321],
     [8329, 8253, 8253, 8322, 8329, 8318, 8253, 8318],
     [8318, 8318, 8318, 1, 8330, 8318, 8319, 8318],
     [8253, 8253, 8331, 8332, 8253, 8253, 8322, 8318],
     [8253, 8318, 8318, 8318, 8318, 1, 8317, 8318],
     [8319, 8318, 8253, 8253, 8320, 8321, 8333, 8334],
     [8253, 8253, 8322, 8333, 8334, 8318, 8253, 8318],
     [8318, 8318, 8318, 1, 8317, 8318, 8319, 8318],
     [8253, 8253, 8320, 8321, 8335, 8253, 8253, 8322],
     [8335, 8318, 8253, 8318, 8318, 8318, 8318, 1],
     [8336, 8318, 8319, 8318, 8253, 8253, 8337, 8338],
     [8253, 8253, 8322, 8318, 8253, 8318, 8318, 8318],
     [8318, 1, 8317, 8318, 8319, 8318, 8253, 8253],
     [8320, 8321, 8339, 8253, 8253, 8322, 8339, 8318],
     [8253, 8318, 8318, 8318, 8318, 1, 8340, 8318],
     [8319, 8318, 8253, 8253, 8341, 8342, 8253, 8253],
     [8322, 8318, 8253, 8318, 8318, 8318, 8318, 1],
     [8317, 8318, 8319, 8318, 8253, 8253, 8320, 8321],
     [8343, 8253, 8253, 8322, 8343, 8318, 8253, 8318],
     [8318, 8318, 8318, 1, 8317, 8318, 8319, 8318],
     [8253, 8253, 8320, 8321, 8344, 8253, 8253, 8322],
     [8344, 8318, 8253, 8318, 8318, 8318, 8318, 1],
     [8345, 8318, 8319, 8318, 8253, 8253, 8346, 8347],
     [8253, 8253, 8322, 8318, 8253, 8318, 8318, 8318],
     [8318, 1, 8317, 8318, 8319, 8318, 8253, 8253],
     [8320, 8321, 8348, 8253, 8253, 8322, 8348, 8318],
     [8253, 8318, 8318, 8318, 8318, 1, 8349, 8318],
     [8319, 8318, 8253, 8253, 8350, 8351, 8352, 8253],
     [8253, 8322, 8352, 8318, 8253, 8318, 8318, 8318],
     [8318, 1, 8353, 8318, 8319, 8318, 8253, 8253],
     [8354, 8355, 8253, 8253, 8322, 8318, 8253, 8318],
     [8318, 8318, 8318, 1, 8234, 8235, 8236, 8233],
     [1, 8234, 8235, 8236, 8232, 1, 8234, 8235],
     [8236, 8356, 1, 8234, 8235, 8236, 8230, 1],
     [8234, 8357, 8235, 8236, 8356, 8230, 1, 8234],
     [8358, 8235, 8236, 8230, 8232, 1, 8234, 8359],
     [8235, 8236, 8232, 8233, 1, 8234, 8235, 8236],
     [8233, 1, 8360, 8361, 8362, 8363, 8218, 8218],
     [1, 8214, 8364, 8214, 8216, 8216, 8216, 1],
     [8365, 8366, 8367, 8368, 8218, 8218, 1, 8214],
     [8369, 8214, 8216, 8216, 8216, 1, 8370, 8371],
     [8372, 8373, 8218, 8218, 1, 8374, 8214, 8217],
     [8375, 8376, 8377, 8214, 8216, 8216, 8216, 1],
     [8374, 8214, 8217, 8375, 8376, 8377, 8214, 8373],
     [8216, 8216, 1, 8374, 8214, 8217, 8375, 8376],
     [8377, 8214, 8370, 8216, 8216, 1, 8374, 8214],
     [8217, 8378, 8375, 8376, 8377, 8214, 8373, 8370],
     [8216, 8216, 1, 8374, 8214, 8217, 8375, 8376],
     [8377, 8214, 8370, 8216, 8216, 8216, 1, 8214],
     [8369, 8214, 8368, 8216, 8216, 1, 8214, 8369],
     [8214, 8365, 8216, 8216, 1, 8214, 8369, 8379],
     [8214, 8368, 8365, 8216, 8216, 1, 8214, 8369],
     [8214, 8365, 8216, 8216, 8216, 1, 8214, 8364],
     [8214, 8363, 8216, 8216, 1, 8214, 8364, 8214],
     [8360, 8216, 8216, 1, 8214, 8364, 8380, 8214],
     [8363, 8360, 8216, 8216, 1, 8214, 8364, 8214],
     [8360, 8216, 8216, 8216, 1, 8214, 8215, 8214],
     [8381, 8216, 8216, 1, 8214, 8215, 8214, 8382],
     [8216, 8216, 1, 8214, 8215, 8383, 8214, 8381],
     [8382, 8216, 8216, 1, 8214, 8215, 8214, 8382],
     [8216, 8216, 8216, 1, 8385, 8384, 8384, 8384],
     [1, 8387, 8386, 8386, 8386, 1, 8387, 8388],
     [8388, 8388, 1, 8387, 8389, 8389, 8389, 1],
     [8387, 1, 8391, 8390, 8390, 8390, 1, 8393],
     [8392, 8392, 8392, 1, 8393, 8394, 8394, 8394],
     [1, 8393, 8395, 8395, 8395, 1, 8393, 1],
     [8397, 8396, 8396, 8396, 1, 8399, 8398, 8398],
     [8398, 1, 8399, 8400, 8400, 8400, 1, 8399],
     [8401, 8401, 8401, 1, 8399, 1, 8403, 8402]]"

definition smp_indicies_56 :: "int list list" where
  "smp_indicies_56 =
    [[8402, 8402, 1, 8405, 8404, 8404, 8404, 1],
     [8405, 8406, 8406, 8406, 1, 8405, 8407, 8407],
     [8407, 1, 8405, 1, 8409, 8408, 8408, 8408],
     [1, 8411, 8410, 8410, 8410, 1, 8411, 8412],
     [8412, 8412, 1, 8411, 8413, 8413, 8413, 1],
     [8411, 1, 8415, 8414, 8414, 8414, 1, 8417],
     [8416, 8416, 8416, 1, 8417, 8418, 8418, 8418],
     [1, 8417, 8419, 8419, 8419, 1, 8417, 1],
     [8420, 8421, 8422, 8424, 8423, 8425, 8425, 1],
     [8426, 8428, 8427, 8427, 8427, 1, 8429, 8430],
     [8431, 8432, 1, 8433, 1, 8434, 8435, 8436],
     [8437, 1, 8438, 1, 8439, 8440, 8441, 8442],
     [1, 8443, 1, 8444, 8445, 8446, 8447, 1],
     [8443, 8442, 1, 8443, 8439, 1, 8448, 8443],
     [8442, 8439, 1, 8443, 8439, 1, 8438, 8437],
     [1, 8438, 8434, 1, 8438, 8449, 8437, 8434],
     [1, 8438, 8434, 1, 8433, 8432, 1, 8433],
     [8429, 1, 8433, 8450, 8432, 8429, 1, 8433],
     [8429, 1, 8428, 8451, 8451, 8451, 1, 8428],
     [8452, 8452, 8452, 1, 8428, 1, 8439, 8453],
     [8453, 8453, 1, 8443, 8454, 8454, 8454, 1],
     [8443, 8455, 8455, 8455, 1, 8443, 8439, 8439],
     [8439, 1, 8426, 8428, 8456, 8427, 8427, 1],
     [8426, 8428, 8457, 8451, 8451, 1, 8426, 8428],
     [8452, 8452, 8452, 1, 8426, 8458, 8428, 8456],
     [8459, 8427, 8427, 1, 8426, 8428, 8457, 8451],
     [8451, 8451, 1, 8426, 8428, 8451, 8451, 8451],
     [1, 8426, 8428, 8459, 8427, 8427, 1, 8443],
     [8453, 8453, 8453, 1, 8428, 8427, 8427, 8427],
     [1, 8460, 8461, 8462, 8443, 8463, 8464, 8464],
     [1, 8426, 8466, 8443, 8465, 8465, 8465, 1],
     [8466, 8443, 8467, 8467, 8467, 1, 8466, 8443],
     [8468, 8468, 8468, 1, 8466, 8443, 1, 8453],
     [8453, 8453, 1, 8426, 8466, 8443, 8469, 8465],
     [8465, 1, 8426, 8466, 8443, 8470, 8467, 8467],
     [1, 8426, 8466, 8443, 8468, 8468, 8468, 1],
     [8426, 8471, 8466, 8443, 8469, 8472, 8465, 8465],
     [1, 8426, 8466, 8443, 8470, 8467, 8467, 8467],
     [1, 8426, 8466, 8443, 8467, 8467, 8467, 1],
     [8426, 8466, 8443, 8472, 8465, 8465, 1, 8466],
     [8443, 8465, 8465, 8465, 1, 8473, 8474, 8475],
     [8443, 8476, 8477, 8477, 1, 8426, 8479, 8443],
     [8478, 8478, 8478, 1, 8479, 8443, 8480, 8480],
     [8480, 1, 8479, 8443, 8481, 8481, 8481, 1],
     [8479, 8443, 1, 8460, 8461, 8462, 8463, 8464],
     [8464, 1, 8426, 8479, 8443, 8482, 8478, 8478],
     [1, 8426, 8479, 8443, 8483, 8480, 8480, 1],
     [8426, 8479, 8443, 8481, 8481, 8481, 1, 8426],
     [8484, 8479, 8443, 8482, 8485, 8478, 8478, 1],
     [8426, 8479, 8443, 8483, 8480, 8480, 8480, 1],
     [8426, 8479, 8443, 8480, 8480, 8480, 1, 8426],
     [8479, 8443, 8485, 8478, 8478, 1, 8479, 8443],
     [8478, 8478, 8478, 1, 8486, 8487, 8488, 8443],
     [8489, 8490, 8490, 1, 8426, 8492, 8443, 8491],
     [8491, 8491, 1, 8492, 8443, 8493, 8493, 8493],
     [1, 8492, 8443, 8494, 8494, 8494, 1, 8492],
     [8443, 1, 8473, 8474, 8475, 8476, 8477, 8477],
     [1, 8426, 8492, 8443, 8495, 8491, 8491, 1],
     [8426, 8492, 8443, 8496, 8493, 8493, 1, 8426],
     [8492, 8443, 8494, 8494, 8494, 1, 8426, 8497],
     [8492, 8443, 8495, 8498, 8491, 8491, 1, 8426],
     [8492, 8443, 8496, 8493, 8493, 8493, 1, 8426],
     [8492, 8443, 8493, 8493, 8493, 1, 8426, 8492],
     [8443, 8498, 8491, 8491, 1, 8492, 8443, 8491],
     [8491, 8491, 1, 8499, 8500, 8501, 8443, 8502],
     [8503, 8503, 1, 8426, 8505, 8443, 8504, 8504],
     [8504, 1, 8505, 8443, 8506, 8506, 8506, 1],
     [8505, 8443, 8507, 8507, 8507, 1, 8505, 8443],
     [1, 8486, 8487, 8488, 8489, 8490, 8490, 1],
     [8426, 8505, 8443, 8508, 8504, 8504, 1, 8426],
     [8505, 8443, 8509, 8506, 8506, 1, 8426, 8505],
     [8443, 8507, 8507, 8507, 1, 8426, 8510, 8505],
     [8443, 8508, 8511, 8504, 8504, 1, 8426, 8505],
     [8443, 8509, 8506, 8506, 8506, 1, 8426, 8505],
     [8443, 8506, 8506, 8506, 1, 8426, 8505, 8443],
     [8511, 8504, 8504, 1, 8505, 8443, 8504, 8504],
     [8504, 1, 8512, 8513, 8514, 8443, 8515, 8516],
     [8516, 1, 8426, 8518, 8443, 8517, 8517, 8517],
     [1, 8518, 8443, 8519, 8519, 8519, 1, 8518],
     [8443, 8520, 8520, 8520, 1, 8518, 8443, 1],
     [8499, 8500, 8501, 8502, 8503, 8503, 1, 8426],
     [8518, 8443, 8521, 8517, 8517, 1, 8426, 8518],
     [8443, 8522, 8519, 8519, 1, 8426, 8518, 8443],
     [8520, 8520, 8520, 1, 8426, 8523, 8518, 8443],
     [8521, 8524, 8517, 8517, 1, 8426, 8518, 8443],
     [8522, 8519, 8519, 8519, 1, 8426, 8518, 8443],
     [8519, 8519, 8519, 1, 8426, 8518, 8443, 8524],
     [8517, 8517, 1, 8518, 8443, 8517, 8517, 8517],
     [1, 8525, 1, 8526, 8527, 8528, 8443, 8529],
     [8530, 8530, 1, 8426, 8532, 8443, 8531, 8531],
     [8531, 1, 8532, 8443, 8533, 8533, 8533, 1],
     [8532, 8443, 8534, 8534, 8534, 1, 8532, 8443],
     [1, 8512, 8513, 8514, 8515, 8516, 8516, 1],
     [8426, 8532, 8443, 8535, 8531, 8531, 1, 8426],
     [8532, 8443, 8536, 8533, 8533, 1, 8426, 8532],
     [8443, 8534, 8534, 8534, 1, 8426, 8537, 8532],
     [8443, 8535, 8538, 8531, 8531, 1, 8426, 8532],
     [8443, 8536, 8533, 8533, 8533, 1, 8426, 8532],
     [8443, 8533, 8533, 8533, 1, 8426, 8532, 8443],
     [8538, 8531, 8531, 1, 8532, 8443, 8531, 8531],
     [8531, 1, 8202, 8203, 8539, 8540, 8204, 8202],
     [8202, 8202, 8205, 8539, 8202, 8202, 8541, 8541],
     [8541, 1, 8202, 8203, 8539, 8204, 8202, 8202],
     [8202, 8205, 8539, 8202, 8202, 8541, 8541, 8541],
     [1, 8202, 8203, 8539, 8542, 8204, 8202, 8202],
     [8202, 8205, 8539, 8202, 8202, 8541, 8541, 8541],
     [1, 8202, 8203, 8204, 8202, 8202, 8202, 8205],
     [8202, 8202, 8202, 8541, 8543, 8543, 1, 8219],
     [8202, 8203, 8544, 8545, 8546, 8547, 8202, 8548],
     [8205, 8544, 8202, 8202, 8543, 8543, 8543, 1],
     [8202, 8203, 8544, 8204, 8202, 8202, 8202, 8205],
     [8544, 8202, 8202, 8543, 8543, 8543, 1, 8219],
     [8202, 8203, 8546, 8547, 8202, 8548, 8205, 8202],
     [8202, 8202, 8541, 8543, 8543, 1, 8204, 8207],
     [8549, 8551, 8204, 8205, 8204, 8204, 8204, 8550],
     [8552, 8204, 8204, 1, 8204, 8207, 8553, 8204],
     [8205, 8204, 8204, 8204, 8554, 8204, 8204, 1],
     [8204, 8207, 8555, 8204, 8205, 8204, 8204, 8204],
     [8556, 8204, 8204, 1, 8204, 8207, 8204, 8204],
     [8205, 8204, 8204, 8204, 8557, 8204, 8204, 1],
     [8234, 8204, 8207, 8235, 8204, 8236, 8205, 8204],
     [8204, 8204, 8204, 8204, 8204, 1, 8234, 8204],
     [8207, 8235, 8204, 8236, 8205, 8204, 8204, 8204],
     [8557, 8204, 8204, 1, 8234, 8204, 8207, 8235],
     [8204, 8236, 8205, 8204, 8204, 8204, 8556, 8204],
     [8204, 1, 8234, 8204, 8207, 8235, 8204, 8236],
     [8205, 8204, 8204, 8204, 8558, 8204, 8204, 1],
     [8234, 8204, 8207, 8235, 8204, 8236, 8205, 8204],
     [8204, 8204, 8554, 8204, 8204, 1, 8234, 8204],
     [8207, 8559, 8235, 8204, 8236, 8205, 8204, 8204],
     [8204, 8558, 8554, 8204, 8204, 1, 8234, 8204],
     [8207, 8560, 8235, 8204, 8236, 8205, 8204, 8204],
     [8204, 8554, 8556, 8204, 8204, 1, 8234, 8204],
     [8207, 8561, 8235, 8204, 8236, 8205, 8204, 8204],
     [8204, 8556, 8557, 8204, 8204, 1, 8234, 8204],
     [8207, 8235, 8204, 8236, 8205, 8204, 8204, 8204],
     [8557, 8204, 8204, 8204, 1, 8562, 8202, 8563],
     [8202, 8564, 8202, 8202, 8202, 8205, 8565, 8566],
     [8567, 8237, 8237, 8562, 8565, 8566, 8567, 8562],
     [8562, 8562, 8562, 1, 8242, 8568, 8202, 8569],
     [8202, 8570, 8571, 8572, 8573, 8205, 8243, 8243],
     [8568, 8568, 8568, 8568, 8568, 1, 8574, 8574],
     [8574, 1, 8568, 8568, 8568, 1, 8242, 8570],
     [8575, 8204, 8243, 8243, 8245, 8576, 8247, 8205],
     [8243, 8243, 8570, 8570, 8570, 8570, 8570, 1],
     [8577, 8577, 8577, 1, 8570, 8570, 8570, 1],
     [8242, 8578, 8579, 8204, 8249, 8249, 8245, 8580],
     [8247, 8205, 8249, 8249, 8578, 8578, 8578, 8578],
     [8578, 1, 8252, 8581, 8582, 8204, 8253, 8253],
     [8255, 8204, 8256, 8205, 8253, 8253, 8581, 8581]]"

definition smp_indicies_57 :: "int list list" where
  "smp_indicies_57 =
    [[8581, 8581, 8581, 1, 8583, 8583, 8583, 1],
     [8581, 8581, 8581, 1, 8578, 8579, 8204, 8249],
     [8249, 8204, 8205, 8249, 8249, 8578, 8578, 8578],
     [8578, 8578, 1, 8242, 8584, 8202, 8585, 8202],
     [8578, 8571, 8586, 8573, 8205, 8249, 8249, 8584],
     [8584, 8584, 8584, 8584, 1, 8252, 8587, 8202],
     [8588, 8202, 8581, 8589, 8202, 8590, 8205, 8253],
     [8253, 8587, 8587, 8587, 8587, 8587, 1, 8591],
     [8591, 8591, 1, 8587, 8587, 8587, 1, 8592],
     [8592, 8593, 8202, 8594, 8202, 8202, 8205, 8258],
     [8258, 8592, 8592, 8202, 8592, 8592, 8592, 1],
     [8592, 8592, 8593, 8202, 8594, 8202, 8595, 8205],
     [8258, 8258, 8592, 8592, 8202, 8592, 8592, 8592],
     [1, 8596, 8596, 8596, 1, 8592, 8592, 8592],
     [1, 8594, 8597, 8204, 8204, 8258, 8258, 8598],
     [8258, 8205, 8258, 8258, 8594, 8594, 8594, 8594],
     [8594, 1, 8599, 8599, 8599, 1, 8594, 8594],
     [8594, 1, 8262, 8598, 8600, 8601, 8204, 8260],
     [8260, 8204, 8260, 8205, 8260, 8260, 8598, 8598],
     [8598, 8598, 8598, 1, 8602, 8602, 8602, 1],
     [8598, 8598, 8598, 1, 8594, 8597, 8204, 8204],
     [8258, 8258, 8204, 8258, 8205, 8258, 8258, 8594],
     [8594, 8594, 8594, 8594, 1, 8262, 8595, 8202],
     [8603, 8604, 8202, 8598, 8202, 8202, 8205, 8260],
     [8260, 8595, 8595, 8595, 8595, 8595, 1, 8605],
     [8605, 8605, 1, 8595, 8595, 8595, 1, 8584],
     [8202, 8585, 8202, 8578, 8202, 8202, 8202, 8205],
     [8249, 8249, 8584, 8584, 8584, 8584, 8584, 1],
     [8242, 8568, 8202, 8569, 8202, 8570, 8571, 8572],
     [8573, 8205, 8606, 8243, 8243, 8568, 8606, 8568],
     [8568, 8568, 8568, 1, 8267, 8568, 8202, 8569],
     [8202, 8570, 8607, 8608, 8609, 8205, 8243, 8243],
     [8568, 8568, 8568, 8568, 8568, 1, 8242, 8610],
     [8202, 8611, 8610, 8202, 8584, 8578, 8571, 8586],
     [8573, 8205, 8249, 8249, 8273, 8610, 8584, 8610],
     [8610, 8610, 1, 8252, 8612, 8202, 8613, 8612],
     [8202, 8587, 8581, 8589, 8202, 8590, 8205, 8253],
     [8253, 8273, 8612, 8587, 8612, 8612, 8612, 1],
     [26, 8273, 8273, 8273, 8277, 8278, 8273, 8273],
     [8273, 8614, 8614, 8273, 8273, 8614, 8273, 1],
     [26, 8273, 8273, 8273, 8277, 8278, 8273, 8273],
     [8273, 8612, 8612, 8273, 8273, 8612, 8273, 1],
     [8242, 8568, 8202, 8569, 8202, 8570, 8571, 8572],
     [8573, 8205, 8615, 8616, 8243, 8243, 8568, 8615],
     [8616, 8568, 8568, 8568, 8568, 1, 8281, 8568],
     [8202, 8569, 8202, 8570, 8617, 8618, 8619, 8205],
     [8243, 8243, 8568, 8568, 8568, 8568, 8568, 1],
     [8242, 8568, 8202, 8569, 8202, 8570, 8571, 8572],
     [8573, 8205, 8620, 8243, 8243, 8568, 8620, 8568],
     [8568, 8568, 8568, 1, 8242, 8568, 8202, 8569],
     [8202, 8570, 8571, 8572, 8573, 8205, 8621, 8243],
     [8243, 8568, 8621, 8568, 8568, 8568, 8568, 1],
     [8242, 8568, 8202, 8569, 8202, 8570, 8571, 8622],
     [8573, 8205, 8243, 8243, 8568, 8568, 8568, 8568],
     [8568, 1, 8242, 8623, 8202, 8624, 8623, 8202],
     [8584, 8578, 8571, 8586, 8573, 8205, 8249, 8249],
     [8290, 8623, 8584, 8623, 8623, 8623, 1, 8291],
     [8625, 8202, 8626, 8625, 8202, 8587, 8581, 8627],
     [8202, 8628, 8205, 8253, 8253, 8296, 8625, 8587],
     [8625, 8625, 8625, 1, 8297, 8296, 8296, 8296],
     [8299, 8300, 8296, 8296, 8296, 8629, 8629, 8296],
     [8296, 8629, 8296, 1, 8297, 8296, 8296, 8296],
     [8299, 8300, 8296, 8296, 8296, 8625, 8625, 8296],
     [8296, 8625, 8296, 1, 8242, 8568, 8202, 8569],
     [8202, 8570, 8571, 8572, 8573, 8205, 8630, 8243],
     [8243, 8568, 8630, 8568, 8568, 8568, 8568, 1],
     [8242, 8568, 8202, 8569, 8202, 8570, 8571, 8572],
     [8573, 8205, 8631, 8243, 8243, 8568, 8631, 8568],
     [8568, 8568, 8568, 1, 8242, 8568, 8202, 8569],
     [8202, 8570, 8571, 8572, 8573, 8205, 8632, 8243],
     [8243, 8568, 8632, 8568, 8568, 8568, 8568, 1],
     [8242, 8568, 8202, 8569, 8202, 8570, 8571, 8572],
     [8573, 8205, 8633, 8243, 8243, 8568, 8633, 8568],
     [8568, 8568, 8568, 1, 8242, 8568, 8202, 8569],
     [8202, 8570, 8571, 8572, 8573, 8205, 8634, 8243],
     [8243, 8568, 8634, 8568, 8568, 8568, 8568, 1],
     [8242, 8568, 8202, 8569, 8202, 8570, 8571, 8572],
     [8573, 8205, 8635, 8243, 8243, 8568, 8635, 8568],
     [8568, 8568, 8568, 1, 8242, 8568, 8202, 8569],
     [8202, 8570, 8571, 8572, 8573, 8205, 8636, 8243],
     [8243, 8568, 8636, 8568, 8568, 8568, 8568, 1],
     [8242, 8568, 8202, 8569, 8202, 8570, 8571, 8572],
     [8573, 8205, 8637, 8243, 8243, 8568, 8637, 8568],
     [8568, 8568, 8568, 1, 8242, 8568, 8202, 8569],
     [8202, 8570, 8571, 8638, 8573, 8205, 8243, 8243],
     [8568, 8568, 8568, 8568, 8568, 1, 8242, 8639],
     [8202, 8640, 8639, 8202, 8584, 8578, 8571, 8586],
     [8573, 8205, 8641, 8642, 8643, 8644, 8249, 8249],
     [8316, 8641, 8642, 8643, 8644, 8639, 8584, 8639],
     [8639, 8639, 1, 8317, 8645, 8202, 8646, 8645],
     [8202, 8587, 8581, 8647, 8202, 8648, 8205, 8253],
     [8253, 8322, 8645, 8587, 8645, 8645, 8645, 1],
     [8323, 8322, 8322, 8322, 8325, 8326, 8322, 8322],
     [8322, 8649, 8649, 8322, 8322, 8649, 8322, 1],
     [8323, 8322, 8322, 8322, 8325, 8326, 8322, 8322],
     [8322, 8645, 8645, 8322, 8322, 8645, 8322, 1],
     [8317, 8645, 8202, 8646, 8645, 8202, 8587, 8581],
     [8647, 8202, 8648, 8205, 8650, 8253, 8253, 8322],
     [8650, 8645, 8587, 8645, 8645, 8645, 1, 8317],
     [8645, 8202, 8646, 8645, 8202, 8587, 8581, 8647],
     [8202, 8648, 8205, 8651, 8253, 8253, 8322, 8651],
     [8645, 8587, 8645, 8645, 8645, 1, 8317, 8645],
     [8202, 8646, 8645, 8202, 8587, 8581, 8647, 8202],
     [8648, 8205, 8652, 8253, 8253, 8322, 8652, 8645],
     [8587, 8645, 8645, 8645, 1, 8330, 8645, 8202],
     [8646, 8645, 8202, 8587, 8581, 8653, 8202, 8654],
     [8205, 8253, 8253, 8322, 8645, 8587, 8645, 8645],
     [8645, 1, 8317, 8645, 8202, 8646, 8645, 8202],
     [8587, 8581, 8647, 8202, 8648, 8205, 8655, 8656],
     [8253, 8253, 8322, 8655, 8656, 8645, 8587, 8645],
     [8645, 8645, 1, 8317, 8645, 8202, 8646, 8645],
     [8202, 8587, 8581, 8647, 8202, 8648, 8205, 8657],
     [8253, 8253, 8322, 8657, 8645, 8587, 8645, 8645],
     [8645, 1, 8336, 8645, 8202, 8646, 8645, 8202],
     [8587, 8581, 8658, 8202, 8659, 8205, 8253, 8253],
     [8322, 8645, 8587, 8645, 8645, 8645, 1, 8317],
     [8645, 8202, 8646, 8645, 8202, 8587, 8581, 8647],
     [8202, 8648, 8205, 8660, 8253, 8253, 8322, 8660],
     [8645, 8587, 8645, 8645, 8645, 1, 8340, 8645],
     [8202, 8646, 8645, 8202, 8587, 8581, 8661, 8202],
     [8662, 8205, 8253, 8253, 8322, 8645, 8587, 8645],
     [8645, 8645, 1, 8317, 8645, 8202, 8646, 8645],
     [8202, 8587, 8581, 8647, 8202, 8648, 8205, 8663],
     [8253, 8253, 8322, 8663, 8645, 8587, 8645, 8645],
     [8645, 1, 8317, 8645, 8202, 8646, 8645, 8202],
     [8587, 8581, 8647, 8202, 8648, 8205, 8664, 8253],
     [8253, 8322, 8664, 8645, 8587, 8645, 8645, 8645],
     [1, 8345, 8645, 8202, 8646, 8645, 8202, 8587],
     [8581, 8665, 8202, 8666, 8205, 8253, 8253, 8322],
     [8645, 8587, 8645, 8645, 8645, 1, 8317, 8645],
     [8202, 8646, 8645, 8202, 8587, 8581, 8647, 8202],
     [8648, 8205, 8667, 8253, 8253, 8322, 8667, 8645],
     [8587, 8645, 8645, 8645, 1, 8349, 8645, 8202],
     [8646, 8645, 8202, 8587, 8581, 8668, 8202, 8669],
     [8205, 8670, 8253, 8253, 8322, 8670, 8645, 8587],
     [8645, 8645, 8645, 1, 8353, 8645, 8202, 8646],
     [8645, 8202, 8587, 8581, 8671, 8202, 8672, 8205],
     [8253, 8253, 8322, 8645, 8587, 8645, 8645, 8645],
     [1, 8202, 8203, 8673, 8674, 8675, 8204, 8202],
     [8202, 8202, 8205, 8202, 8202, 8202, 8676, 8543],
     [8543, 1, 8202, 8203, 8539, 8677, 8204, 8202],
     [8202, 8202, 8205, 8539, 8202, 8202, 8541, 8541],
     [8541, 1, 8202, 8203, 8678, 8679, 8680, 8204],
     [8202, 8202, 8202, 8205, 8202, 8202, 8202, 8681],
     [8543, 8543, 1, 8202, 8203, 8539, 8682, 8204],
     [8202, 8202, 8202, 8205, 8539, 8202, 8202, 8541],
     [8541, 8541, 1, 8202, 8203, 8683, 8684, 8685],
     [8204, 8202, 8202, 8202, 8205, 8202, 8202, 8202],
     [8686, 8543, 8543, 1, 8374, 8202, 8203, 8539],
     [8542, 8687, 8688, 8202, 8689, 8205, 8539, 8202]]"

definition smp_indicies_58 :: "int list list" where
  "smp_indicies_58 =
    [[8202, 8541, 8541, 8541, 1, 8374, 8202, 8203],
     [8539, 8542, 8687, 8688, 8202, 8689, 8205, 8539],
     [8202, 8202, 8686, 8541, 8541, 1, 8374, 8202],
     [8203, 8539, 8542, 8687, 8688, 8202, 8689, 8205],
     [8539, 8202, 8202, 8683, 8541, 8541, 1, 8374],
     [8202, 8203, 8539, 8542, 8690, 8687, 8688, 8202],
     [8689, 8205, 8539, 8202, 8202, 8686, 8683, 8541],
     [8541, 1, 8374, 8202, 8203, 8539, 8542, 8687],
     [8688, 8202, 8689, 8205, 8539, 8202, 8202, 8683],
     [8541, 8541, 8541, 1, 8202, 8203, 8539, 8682],
     [8204, 8202, 8202, 8202, 8205, 8539, 8202, 8202],
     [8681, 8541, 8541, 1, 8202, 8203, 8539, 8682],
     [8204, 8202, 8202, 8202, 8205, 8539, 8202, 8202],
     [8678, 8541, 8541, 1, 8202, 8203, 8539, 8682],
     [8691, 8204, 8202, 8202, 8202, 8205, 8539, 8202],
     [8202, 8681, 8678, 8541, 8541, 1, 8202, 8203],
     [8539, 8682, 8204, 8202, 8202, 8202, 8205, 8539],
     [8202, 8202, 8678, 8541, 8541, 8541, 1, 8202],
     [8203, 8539, 8677, 8204, 8202, 8202, 8202, 8205],
     [8539, 8202, 8202, 8676, 8541, 8541, 1, 8202],
     [8203, 8539, 8677, 8204, 8202, 8202, 8202, 8205],
     [8539, 8202, 8202, 8673, 8541, 8541, 1, 8202],
     [8203, 8539, 8677, 8692, 8204, 8202, 8202, 8202],
     [8205, 8539, 8202, 8202, 8676, 8673, 8541, 8541],
     [1, 8202, 8203, 8539, 8677, 8204, 8202, 8202],
     [8202, 8205, 8539, 8202, 8202, 8673, 8541, 8541],
     [8541, 1, 8202, 8203, 8539, 8540, 8204, 8202],
     [8202, 8202, 8205, 8539, 8202, 8202, 8693, 8541],
     [8541, 1, 8202, 8203, 8539, 8540, 8204, 8202],
     [8202, 8202, 8205, 8539, 8202, 8202, 8694, 8541],
     [8541, 1, 8202, 8203, 8539, 8540, 8695, 8204],
     [8202, 8202, 8202, 8205, 8539, 8202, 8202, 8693],
     [8694, 8541, 8541, 1, 8202, 8203, 8539, 8540],
     [8204, 8202, 8202, 8202, 8205, 8539, 8202, 8202],
     [8694, 8541, 8541, 8541, 1, 24, 8696, 24],
     [24, 24, 24, 1, 24, 25, 8697, 8697],
     [24, 24, 24, 24, 1, 24, 25, 8698],
     [8698, 24, 24, 24, 24, 1, 24, 8699],
     [24, 24, 24, 24, 1, 8700, 8700, 8702],
     [8701, 8701, 8700, 8700, 8700, 1, 8703, 8704],
     [8705, 8704, 8704, 8704, 8704, 8704, 1, 8706],
     [8707, 8707, 8706, 8706, 8706, 1, 8242, 8708],
     [8709, 8710, 8708, 8708, 8708, 1, 8711, 8712],
     [8711, 8711, 8711, 8711, 8711, 8711, 8711, 1],
     [8252, 8713, 8714, 8715, 8713, 8713, 8713, 8713],
     [8713, 8713, 8713, 1, 8716, 8716, 8716, 1],
     [8713, 8713, 8713, 1, 8242, 8708, 8709, 8710],
     [8717, 8717, 8708, 8708, 8708, 1, 8242, 8708],
     [8709, 8710, 8718, 8718, 8708, 8708, 8708, 1],
     [8242, 8708, 8709, 8710, 8719, 8719, 8708, 8708],
     [8708, 1, 8242, 8708, 8709, 8710, 8720, 8720],
     [8708, 8708, 8708, 1, 8242, 8721, 8709, 8710],
     [8708, 8708, 8708, 1, 8242, 8708, 8709, 8710],
     [8722, 8722, 8708, 8708, 8708, 1, 8242, 8708],
     [8709, 8710, 8723, 8723, 8708, 8708, 8708, 1],
     [8242, 8708, 8709, 8710, 8724, 8724, 8708, 8708],
     [8708, 1, 8242, 8708, 8709, 8710, 8725, 8725],
     [8708, 8708, 8708, 1, 8242, 8708, 8709, 8710],
     [8726, 8726, 8708, 8708, 8708, 1, 8242, 8708],
     [8709, 8710, 8727, 8727, 8708, 8708, 8708, 1],
     [8242, 8708, 8709, 8710, 8728, 8728, 8708, 8708],
     [8708, 1, 8242, 8708, 8709, 8729, 8708, 8708],
     [8708, 1, 8711, 8712, 8730, 8711, 8711, 8711],
     [8711, 8711, 8711, 8711, 8731, 8732, 8732, 1],
     [8252, 8713, 8714, 8713, 8713, 8715, 8713, 8713],
     [8713, 8713, 8733, 8713, 8733, 8734, 8713, 8713],
     [1, 8735, 8713, 8714, 8713, 8713, 8736, 8713],
     [8713, 8713, 8713, 8734, 8713, 8734, 8713, 8713],
     [1, 8252, 8713, 8714, 8737, 8738, 8713, 8713],
     [8715, 8713, 8713, 8737, 8713, 8713, 8739, 8739],
     [8739, 1, 8252, 8713, 8714, 8737, 8713, 8715],
     [8713, 8713, 8737, 8713, 8713, 8713, 8739, 8739],
     [8739, 1, 8252, 8713, 8714, 8713, 8715, 8713],
     [8713, 8713, 8713, 8713, 8713, 8739, 8740, 8740],
     [1, 8735, 8713, 8714, 8741, 8742, 8713, 8713],
     [8736, 8713, 8713, 8741, 8713, 8713, 8740, 8740],
     [8740, 1, 8252, 8713, 8714, 8741, 8713, 8715],
     [8713, 8713, 8741, 8713, 8713, 8713, 8740, 8740],
     [8740, 1, 8735, 8713, 8714, 8713, 8736, 8713],
     [8713, 8713, 8713, 8713, 8713, 8739, 8740, 8740],
     [1, 8704, 8704, 8743, 8743, 8704, 8704, 8704],
     [1, 8744, 8744, 8745, 1, 8703, 8705, 8745],
     [8745, 8745, 1, 19, 20, 20, 20, 8746],
     [20, 20, 20, 20, 20, 20, 1, 19],
     [20, 20, 20, 8747, 20, 20, 20, 20],
     [20, 20, 1, 8748, 20, 20, 20, 20],
     [20, 20, 20, 20, 20, 1, 19, 20],
     [20, 20, 8749, 20, 20, 20, 20, 20],
     [20, 1, 19, 20, 20, 20, 8750, 20],
     [20, 20, 20, 20, 20, 1, 8751, 20],
     [20, 20, 20, 20, 20, 20, 20, 20],
     [1, 19, 20, 20, 20, 8752, 20, 20],
     [20, 20, 20, 20, 1, 19, 20, 20],
     [20, 8753, 20, 20, 20, 20, 20, 20],
     [1, 19, 20, 20, 20, 8754, 20, 20],
     [20, 20, 20, 20, 1, 19, 20, 20],
     [20, 8755, 20, 20, 20, 20, 20, 20],
     [1, 19, 20, 20, 20, 8756, 20, 20],
     [20, 20, 20, 20, 1, 8757, 20, 20],
     [20, 20, 20, 20, 20, 20, 20, 1],
     [19, 20, 20, 20, 8758, 8758, 20, 20],
     [20, 20, 20, 20, 1, 19, 20, 20],
     [20, 8759, 8759, 20, 20, 20, 20, 20],
     [20, 1, 19, 20, 20, 20, 8760, 8760],
     [20, 20, 20, 20, 20, 20, 1, 19],
     [20, 20, 20, 8761, 20, 20, 20, 20],
     [20, 1, 8762, 1, 8763, 8764, 1, 8765],
     [1, 8766, 8767, 1, 8768, 1, 8769, 1],
     [8770, 1, 8771, 1, 8773, 8772, 8775, 8774],
     [8766, 1, 8763, 1, 19, 20, 20, 20],
     [8776, 20, 20, 20, 20, 20, 20, 1],
     [19, 20, 20, 20, 8777, 8778, 20, 20],
     [20, 20, 20, 20, 1, 19, 20, 20],
     [20, 8779, 20, 20, 20, 20, 20, 20],
     [1, 8780, 20, 20, 20, 20, 20, 20],
     [20, 20, 20, 1, 19, 20, 20, 20],
     [8781, 20, 20, 20, 20, 20, 20, 1],
     [19, 20, 20, 20, 8782, 20, 20, 20],
     [20, 20, 20, 1, 19, 20, 20, 20],
     [8783, 20, 20, 20, 20, 20, 20, 1],
     [8784, 20, 20, 20, 20, 20, 20, 20],
     [20, 20, 1, 19, 20, 20, 20, 8785],
     [20, 20, 20, 20, 20, 20, 1, 19],
     [20, 20, 20, 8786, 20, 20, 20, 20],
     [20, 20, 1, 19, 20, 20, 20, 8787],
     [20, 20, 20, 20, 20, 20, 1, 19],
     [20, 20, 20, 8788, 20, 20, 20, 20],
     [20, 20, 1, 19, 20, 20, 20, 8789],
     [20, 20, 20, 20, 20, 20, 1, 19],
     [20, 20, 20, 8790, 20, 20, 20, 20],
     [20, 20, 1, 8791, 20, 20, 20, 20],
     [20, 20, 20, 20, 20, 1, 19, 20],
     [20, 20, 8792, 20, 20, 20, 20, 20],
     [20, 1, 19, 20, 20, 20, 8793, 20],
     [20, 20, 20, 20, 20, 1, 19, 20],
     [20, 20, 8794, 20, 20, 20, 20, 20],
     [20, 1, 19, 20, 20, 20, 8795, 20],
     [20, 20, 20, 20, 20, 1, 19, 20],
     [20, 20, 8796, 20, 20, 20, 20, 20],
     [20, 1, 8797, 20, 20, 20, 20, 20],
     [20, 20, 20, 20, 1, 19, 20, 20],
     [20, 8798, 20, 20, 20, 20, 20, 20],
     [1, 19, 20, 20, 20, 8799, 20, 20],
     [20, 20, 20, 20, 1, 19, 20, 20],
     [20, 8800, 20, 20, 20, 20, 20, 20],
     [1, 19, 20, 20, 20, 8801, 20, 20],
     [20, 20, 20, 20, 1, 19, 20, 20],
     [20, 8802, 20, 20, 20, 20, 20, 20],
     [1, 19, 20, 20, 20, 8803, 20, 20],
     [20, 20, 20, 20, 1, 8804, 20, 20]]"

definition smp_indicies_59 :: "int list list" where
  "smp_indicies_59 =
    [[20, 20, 20, 20, 20, 20, 20, 1],
     [19, 20, 20, 20, 8805, 8806, 20, 20],
     [20, 20, 20, 20, 1, 19, 20, 20],
     [20, 8807, 20, 20, 20, 20, 20, 20],
     [1, 19, 20, 20, 20, 8808, 20, 20],
     [20, 20, 20, 20, 1, 19, 20, 20],
     [20, 8809, 20, 20, 20, 20, 20, 20],
     [1, 8810, 20, 20, 20, 20, 20, 20],
     [20, 20, 20, 1, 19, 20, 20, 20],
     [8811, 8812, 8813, 20, 20, 20, 20, 20],
     [20, 1, 19, 20, 20, 20, 8814, 20],
     [20, 20, 20, 20, 20, 1, 19, 20],
     [20, 20, 8815, 20, 20, 20, 20, 20],
     [20, 1, 19, 20, 20, 20, 8816, 20],
     [20, 20, 20, 20, 20, 1, 19, 20],
     [20, 20, 8817, 20, 20, 20, 20, 20],
     [20, 1, 8818, 20, 20, 20, 20, 20],
     [20, 20, 20, 20, 1, 19, 20, 20],
     [20, 8819, 20, 20, 20, 20, 20, 20],
     [1, 8820, 20, 20, 20, 20, 20, 20],
     [20, 20, 20, 1, 19, 20, 20, 20],
     [8821, 20, 20, 20, 20, 20, 20, 1],
     [8822, 20, 20, 20, 20, 20, 20, 20],
     [20, 20, 1, 19, 20, 20, 20, 8823],
     [20, 20, 20, 20, 20, 20, 1, 19],
     [20, 20, 20, 8824, 8825, 20, 20, 20],
     [20, 20, 20, 1, 19, 20, 20, 20],
     [8826, 20, 20, 20, 20, 20, 20, 1],
     [19, 20, 20, 20, 8827, 20, 20, 20],
     [20, 20, 20, 1, 8828, 20, 20, 20],
     [20, 20, 20, 20, 20, 20, 1, 19],
     [20, 20, 20, 8829, 20, 20, 20, 20],
     [20, 20, 1, 19, 20, 20, 20, 8830],
     [20, 20, 20, 20, 20, 20, 1, 19],
     [20, 20, 20, 8831, 20, 20, 20, 20],
     [20, 20, 1, 19, 20, 20, 20, 8832],
     [20, 20, 20, 20, 20, 20, 1, 19],
     [20, 20, 20, 8833, 20, 20, 20, 20],
     [20, 20, 1, 8834, 20, 20, 20, 20],
     [20, 20, 20, 20, 20, 1, 19, 20],
     [20, 20, 8759, 8835, 8836, 8759, 20, 20],
     [20, 20, 20, 20, 1, 19, 20, 20],
     [20, 8837, 20, 20, 20, 20, 20, 20],
     [1, 19, 20, 20, 20, 8838, 20, 20],
     [20, 20, 20, 20, 1, 19, 20, 20],
     [20, 8839, 20, 20, 20, 20, 20, 20],
     [1, 8840, 20, 20, 20, 20, 20, 20],
     [20, 20, 20, 1, 19, 20, 20, 20],
     [8841, 20, 20, 20, 20, 20, 20, 1],
     [19, 20, 20, 20, 8842, 20, 20, 20],
     [20, 20, 20, 1, 19, 20, 20, 20],
     [8843, 20, 20, 20, 20, 20, 20, 1],
     [19, 20, 20, 20, 8844, 20, 20, 20],
     [20, 20, 20, 1, 19, 20, 20, 20],
     [8845, 20, 20, 20, 20, 20, 20, 1],
     [19, 20, 20, 20, 8846, 20, 20, 20],
     [20, 20, 20, 1, 19, 20, 20, 20],
     [8847, 20, 20, 20, 20, 20, 20, 1],
     [8848, 20, 20, 20, 20, 20, 20, 20],
     [20, 20, 1, 19, 20, 20, 20, 8849],
     [20, 20, 20, 20, 20, 20, 1, 19],
     [20, 20, 20, 8850, 20, 20, 20, 20],
     [20, 20, 1, 19, 20, 20, 20, 8851],
     [20, 20, 20, 20, 20, 20, 1, 19],
     [20, 20, 20, 8852, 20, 20, 20, 20],
     [20, 20, 1, 19, 20, 20, 20, 8853],
     [20, 20, 20, 20, 20, 20, 1, 8854],
     [20, 20, 20, 20, 20, 20, 20, 20],
     [20, 1, 19, 20, 20, 20, 8759, 8759],
     [20, 20, 20, 20, 20, 20, 1, 1],
     [0]]"

definition smp_indicies :: "int list" where
  "smp_indicies =
     concat smp_indicies_1 @ concat smp_indicies_2 @ concat smp_indicies_3 @
     concat smp_indicies_4 @ concat smp_indicies_5 @ concat smp_indicies_6 @
     concat smp_indicies_7 @ concat smp_indicies_8 @ concat smp_indicies_9 @
     concat smp_indicies_10 @ concat smp_indicies_11 @ concat smp_indicies_12 @
     concat smp_indicies_13 @ concat smp_indicies_14 @ concat smp_indicies_15 @
     concat smp_indicies_16 @ concat smp_indicies_17 @ concat smp_indicies_18 @
     concat smp_indicies_19 @ concat smp_indicies_20 @ concat smp_indicies_21 @
     concat smp_indicies_22 @ concat smp_indicies_23 @ concat smp_indicies_24 @
     concat smp_indicies_25 @ concat smp_indicies_26 @ concat smp_indicies_27 @
     concat smp_indicies_28 @ concat smp_indicies_29 @ concat smp_indicies_30 @
     concat smp_indicies_31 @ concat smp_indicies_32 @ concat smp_indicies_33 @
     concat smp_indicies_34 @ concat smp_indicies_35 @ concat smp_indicies_36 @
     concat smp_indicies_37 @ concat smp_indicies_38 @ concat smp_indicies_39 @
     concat smp_indicies_40 @ concat smp_indicies_41 @ concat smp_indicies_42 @
     concat smp_indicies_43 @ concat smp_indicies_44 @ concat smp_indicies_45 @
     concat smp_indicies_46 @ concat smp_indicies_47 @ concat smp_indicies_48 @
     concat smp_indicies_49 @ concat smp_indicies_50 @ concat smp_indicies_51 @
     concat smp_indicies_52 @ concat smp_indicies_53 @ concat smp_indicies_54 @
     concat smp_indicies_55 @ concat smp_indicies_56 @ concat smp_indicies_57 @
     concat smp_indicies_58 @ concat smp_indicies_59"

lemma smp_indicies_1_place: "all1 smp_place 0 1200 (concat smp_indicies_1)"
  by (simp only: smp_indicies_1_def smp_place_def smp_early_place_def smp_early_trans_def smp_late_trans_def
      if_True if_False row_arith)

lemma smp_indicies_2_late: "all1 (\<lambda>i. smp_late_trans) 1200 2400 (concat smp_indicies_2)"
  by (simp only: smp_indicies_2_def smp_late_trans_def row_arith)

lemma smp_indicies_2_place: "all1 smp_place 1200 2400 (concat smp_indicies_2)"
  by (rule all1_mono [OF smp_indicies_2_late]) (simp add: smp_place_late)

lemma smp_indicies_3_late: "all1 (\<lambda>i. smp_late_trans) 2400 3600 (concat smp_indicies_3)"
  by (simp only: smp_indicies_3_def smp_late_trans_def row_arith)

lemma smp_indicies_3_place: "all1 smp_place 2400 3600 (concat smp_indicies_3)"
  by (rule all1_mono [OF smp_indicies_3_late]) (simp add: smp_place_late)

lemma smp_indicies_4_late: "all1 (\<lambda>i. smp_late_trans) 3600 4800 (concat smp_indicies_4)"
  by (simp only: smp_indicies_4_def smp_late_trans_def row_arith)

lemma smp_indicies_4_place: "all1 smp_place 3600 4800 (concat smp_indicies_4)"
  by (rule all1_mono [OF smp_indicies_4_late]) (simp add: smp_place_late)

lemma smp_indicies_5_late: "all1 (\<lambda>i. smp_late_trans) 4800 6000 (concat smp_indicies_5)"
  by (simp only: smp_indicies_5_def smp_late_trans_def row_arith)

lemma smp_indicies_5_place: "all1 smp_place 4800 6000 (concat smp_indicies_5)"
  by (rule all1_mono [OF smp_indicies_5_late]) (simp add: smp_place_late)

lemma smp_indicies_6_late: "all1 (\<lambda>i. smp_late_trans) 6000 7200 (concat smp_indicies_6)"
  by (simp only: smp_indicies_6_def smp_late_trans_def row_arith)

lemma smp_indicies_6_place: "all1 smp_place 6000 7200 (concat smp_indicies_6)"
  by (rule all1_mono [OF smp_indicies_6_late]) (simp add: smp_place_late)

lemma smp_indicies_7_late: "all1 (\<lambda>i. smp_late_trans) 7200 8400 (concat smp_indicies_7)"
  by (simp only: smp_indicies_7_def smp_late_trans_def row_arith)

lemma smp_indicies_7_place: "all1 smp_place 7200 8400 (concat smp_indicies_7)"
  by (rule all1_mono [OF smp_indicies_7_late]) (simp add: smp_place_late)

lemma smp_indicies_8_late: "all1 (\<lambda>i. smp_late_trans) 8400 9600 (concat smp_indicies_8)"
  by (simp only: smp_indicies_8_def smp_late_trans_def row_arith)

lemma smp_indicies_8_place: "all1 smp_place 8400 9600 (concat smp_indicies_8)"
  by (rule all1_mono [OF smp_indicies_8_late]) (simp add: smp_place_late)

lemma smp_indicies_9_late: "all1 (\<lambda>i. smp_late_trans) 9600 10800 (concat smp_indicies_9)"
  by (simp only: smp_indicies_9_def smp_late_trans_def row_arith)

lemma smp_indicies_9_place: "all1 smp_place 9600 10800 (concat smp_indicies_9)"
  by (rule all1_mono [OF smp_indicies_9_late]) (simp add: smp_place_late)

lemma smp_indicies_10_late: "all1 (\<lambda>i. smp_late_trans) 10800 12000 (concat smp_indicies_10)"
  by (simp only: smp_indicies_10_def smp_late_trans_def row_arith)

lemma smp_indicies_10_place: "all1 smp_place 10800 12000 (concat smp_indicies_10)"
  by (rule all1_mono [OF smp_indicies_10_late]) (simp add: smp_place_late)

lemma smp_indicies_11_late: "all1 (\<lambda>i. smp_late_trans) 12000 13200 (concat smp_indicies_11)"
  by (simp only: smp_indicies_11_def smp_late_trans_def row_arith)

lemma smp_indicies_11_place: "all1 smp_place 12000 13200 (concat smp_indicies_11)"
  by (rule all1_mono [OF smp_indicies_11_late]) (simp add: smp_place_late)

lemma smp_indicies_12_late: "all1 (\<lambda>i. smp_late_trans) 13200 14400 (concat smp_indicies_12)"
  by (simp only: smp_indicies_12_def smp_late_trans_def row_arith)

lemma smp_indicies_12_place: "all1 smp_place 13200 14400 (concat smp_indicies_12)"
  by (rule all1_mono [OF smp_indicies_12_late]) (simp add: smp_place_late)

lemma smp_indicies_13_late: "all1 (\<lambda>i. smp_late_trans) 14400 15600 (concat smp_indicies_13)"
  by (simp only: smp_indicies_13_def smp_late_trans_def row_arith)

lemma smp_indicies_13_place: "all1 smp_place 14400 15600 (concat smp_indicies_13)"
  by (rule all1_mono [OF smp_indicies_13_late]) (simp add: smp_place_late)

lemma smp_indicies_14_late: "all1 (\<lambda>i. smp_late_trans) 15600 16800 (concat smp_indicies_14)"
  by (simp only: smp_indicies_14_def smp_late_trans_def row_arith)

lemma smp_indicies_14_place: "all1 smp_place 15600 16800 (concat smp_indicies_14)"
  by (rule all1_mono [OF smp_indicies_14_late]) (simp add: smp_place_late)

lemma smp_indicies_15_late: "all1 (\<lambda>i. smp_late_trans) 16800 18000 (concat smp_indicies_15)"
  by (simp only: smp_indicies_15_def smp_late_trans_def row_arith)

lemma smp_indicies_15_place: "all1 smp_place 16800 18000 (concat smp_indicies_15)"
  by (rule all1_mono [OF smp_indicies_15_late]) (simp add: smp_place_late)

lemma smp_indicies_16_late: "all1 (\<lambda>i. smp_late_trans) 18000 19200 (concat smp_indicies_16)"
  by (simp only: smp_indicies_16_def smp_late_trans_def row_arith)

lemma smp_indicies_16_place: "all1 smp_place 18000 19200 (concat smp_indicies_16)"
  by (rule all1_mono [OF smp_indicies_16_late]) (simp add: smp_place_late)

lemma smp_indicies_17_late: "all1 (\<lambda>i. smp_late_trans) 19200 20400 (concat smp_indicies_17)"
  by (simp only: smp_indicies_17_def smp_late_trans_def row_arith)

lemma smp_indicies_17_place: "all1 smp_place 19200 20400 (concat smp_indicies_17)"
  by (rule all1_mono [OF smp_indicies_17_late]) (simp add: smp_place_late)

lemma smp_indicies_18_late: "all1 (\<lambda>i. smp_late_trans) 20400 21600 (concat smp_indicies_18)"
  by (simp only: smp_indicies_18_def smp_late_trans_def row_arith)

lemma smp_indicies_18_place: "all1 smp_place 20400 21600 (concat smp_indicies_18)"
  by (rule all1_mono [OF smp_indicies_18_late]) (simp add: smp_place_late)

lemma smp_indicies_19_late: "all1 (\<lambda>i. smp_late_trans) 21600 22800 (concat smp_indicies_19)"
  by (simp only: smp_indicies_19_def smp_late_trans_def row_arith)

lemma smp_indicies_19_place: "all1 smp_place 21600 22800 (concat smp_indicies_19)"
  by (rule all1_mono [OF smp_indicies_19_late]) (simp add: smp_place_late)

lemma smp_indicies_20_late: "all1 (\<lambda>i. smp_late_trans) 22800 24000 (concat smp_indicies_20)"
  by (simp only: smp_indicies_20_def smp_late_trans_def row_arith)

lemma smp_indicies_20_place: "all1 smp_place 22800 24000 (concat smp_indicies_20)"
  by (rule all1_mono [OF smp_indicies_20_late]) (simp add: smp_place_late)

lemma smp_indicies_21_late: "all1 (\<lambda>i. smp_late_trans) 24000 25200 (concat smp_indicies_21)"
  by (simp only: smp_indicies_21_def smp_late_trans_def row_arith)

lemma smp_indicies_21_place: "all1 smp_place 24000 25200 (concat smp_indicies_21)"
  by (rule all1_mono [OF smp_indicies_21_late]) (simp add: smp_place_late)

lemma smp_indicies_22_late: "all1 (\<lambda>i. smp_late_trans) 25200 26400 (concat smp_indicies_22)"
  by (simp only: smp_indicies_22_def smp_late_trans_def row_arith)

lemma smp_indicies_22_place: "all1 smp_place 25200 26400 (concat smp_indicies_22)"
  by (rule all1_mono [OF smp_indicies_22_late]) (simp add: smp_place_late)

lemma smp_indicies_23_late: "all1 (\<lambda>i. smp_late_trans) 26400 27600 (concat smp_indicies_23)"
  by (simp only: smp_indicies_23_def smp_late_trans_def row_arith)

lemma smp_indicies_23_place: "all1 smp_place 26400 27600 (concat smp_indicies_23)"
  by (rule all1_mono [OF smp_indicies_23_late]) (simp add: smp_place_late)

lemma smp_indicies_24_late: "all1 (\<lambda>i. smp_late_trans) 27600 28800 (concat smp_indicies_24)"
  by (simp only: smp_indicies_24_def smp_late_trans_def row_arith)

lemma smp_indicies_24_place: "all1 smp_place 27600 28800 (concat smp_indicies_24)"
  by (rule all1_mono [OF smp_indicies_24_late]) (simp add: smp_place_late)

lemma smp_indicies_25_late: "all1 (\<lambda>i. smp_late_trans) 28800 30000 (concat smp_indicies_25)"
  by (simp only: smp_indicies_25_def smp_late_trans_def row_arith)

lemma smp_indicies_25_place: "all1 smp_place 28800 30000 (concat smp_indicies_25)"
  by (rule all1_mono [OF smp_indicies_25_late]) (simp add: smp_place_late)

lemma smp_indicies_26_late: "all1 (\<lambda>i. smp_late_trans) 30000 31200 (concat smp_indicies_26)"
  by (simp only: smp_indicies_26_def smp_late_trans_def row_arith)

lemma smp_indicies_26_place: "all1 smp_place 30000 31200 (concat smp_indicies_26)"
  by (rule all1_mono [OF smp_indicies_26_late]) (simp add: smp_place_late)

lemma smp_indicies_27_late: "all1 (\<lambda>i. smp_late_trans) 31200 32400 (concat smp_indicies_27)"
  by (simp only: smp_indicies_27_def smp_late_trans_def row_arith)

lemma smp_indicies_27_place: "all1 smp_place 31200 32400 (concat smp_indicies_27)"
  by (rule all1_mono [OF smp_indicies_27_late]) (simp add: smp_place_late)

lemma smp_indicies_28_late: "all1 (\<lambda>i. smp_late_trans) 32400 33600 (concat smp_indicies_28)"
  by (simp only: smp_indicies_28_def smp_late_trans_def row_arith)

lemma smp_indicies_28_place: "all1 smp_place 32400 33600 (concat smp_indicies_28)"
  by (rule all1_mono [OF smp_indicies_28_late]) (simp add: smp_place_late)

lemma smp_indicies_29_late: "all1 (\<lambda>i. smp_late_trans) 33600 34800 (concat smp_indicies_29)"
  by (simp only: smp_indicies_29_def smp_late_trans_def row_arith)

lemma smp_indicies_29_place: "all1 smp_place 33600 34800 (concat smp_indicies_29)"
  by (rule all1_mono [OF smp_indicies_29_late]) (simp add: smp_place_late)

lemma smp_indicies_30_late: "all1 (\<lambda>i. smp_late_trans) 34800 36000 (concat smp_indicies_30)"
  by (simp only: smp_indicies_30_def smp_late_trans_def row_arith)

lemma smp_indicies_30_place: "all1 smp_place 34800 36000 (concat smp_indicies_30)"
  by (rule all1_mono [OF smp_indicies_30_late]) (simp add: smp_place_late)

lemma smp_indicies_31_late: "all1 (\<lambda>i. smp_late_trans) 36000 37200 (concat smp_indicies_31)"
  by (simp only: smp_indicies_31_def smp_late_trans_def row_arith)

lemma smp_indicies_31_place: "all1 smp_place 36000 37200 (concat smp_indicies_31)"
  by (rule all1_mono [OF smp_indicies_31_late]) (simp add: smp_place_late)

lemma smp_indicies_32_late: "all1 (\<lambda>i. smp_late_trans) 37200 38400 (concat smp_indicies_32)"
  by (simp only: smp_indicies_32_def smp_late_trans_def row_arith)

lemma smp_indicies_32_place: "all1 smp_place 37200 38400 (concat smp_indicies_32)"
  by (rule all1_mono [OF smp_indicies_32_late]) (simp add: smp_place_late)

lemma smp_indicies_33_late: "all1 (\<lambda>i. smp_late_trans) 38400 39600 (concat smp_indicies_33)"
  by (simp only: smp_indicies_33_def smp_late_trans_def row_arith)

lemma smp_indicies_33_place: "all1 smp_place 38400 39600 (concat smp_indicies_33)"
  by (rule all1_mono [OF smp_indicies_33_late]) (simp add: smp_place_late)

lemma smp_indicies_34_late: "all1 (\<lambda>i. smp_late_trans) 39600 40800 (concat smp_indicies_34)"
  by (simp only: smp_indicies_34_def smp_late_trans_def row_arith)

lemma smp_indicies_34_place: "all1 smp_place 39600 40800 (concat smp_indicies_34)"
  by (rule all1_mono [OF smp_indicies_34_late]) (simp add: smp_place_late)

lemma smp_indicies_35_late: "all1 (\<lambda>i. smp_late_trans) 40800 42000 (concat smp_indicies_35)"
  by (simp only: smp_indicies_35_def smp_late_trans_def row_arith)

lemma smp_indicies_35_place: "all1 smp_place 40800 42000 (concat smp_indicies_35)"
  by (rule all1_mono [OF smp_indicies_35_late]) (simp add: smp_place_late)

lemma smp_indicies_36_late: "all1 (\<lambda>i. smp_late_trans) 42000 43200 (concat smp_indicies_36)"
  by (simp only: smp_indicies_36_def smp_late_trans_def row_arith)

lemma smp_indicies_36_place: "all1 smp_place 42000 43200 (concat smp_indicies_36)"
  by (rule all1_mono [OF smp_indicies_36_late]) (simp add: smp_place_late)

lemma smp_indicies_37_late: "all1 (\<lambda>i. smp_late_trans) 43200 44400 (concat smp_indicies_37)"
  by (simp only: smp_indicies_37_def smp_late_trans_def row_arith)

lemma smp_indicies_37_place: "all1 smp_place 43200 44400 (concat smp_indicies_37)"
  by (rule all1_mono [OF smp_indicies_37_late]) (simp add: smp_place_late)

lemma smp_indicies_38_late: "all1 (\<lambda>i. smp_late_trans) 44400 45600 (concat smp_indicies_38)"
  by (simp only: smp_indicies_38_def smp_late_trans_def row_arith)

lemma smp_indicies_38_place: "all1 smp_place 44400 45600 (concat smp_indicies_38)"
  by (rule all1_mono [OF smp_indicies_38_late]) (simp add: smp_place_late)

lemma smp_indicies_39_late: "all1 (\<lambda>i. smp_late_trans) 45600 46800 (concat smp_indicies_39)"
  by (simp only: smp_indicies_39_def smp_late_trans_def row_arith)

lemma smp_indicies_39_place: "all1 smp_place 45600 46800 (concat smp_indicies_39)"
  by (rule all1_mono [OF smp_indicies_39_late]) (simp add: smp_place_late)

lemma smp_indicies_40_late: "all1 (\<lambda>i. smp_late_trans) 46800 48000 (concat smp_indicies_40)"
  by (simp only: smp_indicies_40_def smp_late_trans_def row_arith)

lemma smp_indicies_40_place: "all1 smp_place 46800 48000 (concat smp_indicies_40)"
  by (rule all1_mono [OF smp_indicies_40_late]) (simp add: smp_place_late)

lemma smp_indicies_41_late: "all1 (\<lambda>i. smp_late_trans) 48000 49200 (concat smp_indicies_41)"
  by (simp only: smp_indicies_41_def smp_late_trans_def row_arith)

lemma smp_indicies_41_place: "all1 smp_place 48000 49200 (concat smp_indicies_41)"
  by (rule all1_mono [OF smp_indicies_41_late]) (simp add: smp_place_late)

lemma smp_indicies_42_late: "all1 (\<lambda>i. smp_late_trans) 49200 50400 (concat smp_indicies_42)"
  by (simp only: smp_indicies_42_def smp_late_trans_def row_arith)

lemma smp_indicies_42_place: "all1 smp_place 49200 50400 (concat smp_indicies_42)"
  by (rule all1_mono [OF smp_indicies_42_late]) (simp add: smp_place_late)

lemma smp_indicies_43_late: "all1 (\<lambda>i. smp_late_trans) 50400 51600 (concat smp_indicies_43)"
  by (simp only: smp_indicies_43_def smp_late_trans_def row_arith)

lemma smp_indicies_43_place: "all1 smp_place 50400 51600 (concat smp_indicies_43)"
  by (rule all1_mono [OF smp_indicies_43_late]) (simp add: smp_place_late)

lemma smp_indicies_44_late: "all1 (\<lambda>i. smp_late_trans) 51600 52800 (concat smp_indicies_44)"
  by (simp only: smp_indicies_44_def smp_late_trans_def row_arith)

lemma smp_indicies_44_place: "all1 smp_place 51600 52800 (concat smp_indicies_44)"
  by (rule all1_mono [OF smp_indicies_44_late]) (simp add: smp_place_late)

lemma smp_indicies_45_late: "all1 (\<lambda>i. smp_late_trans) 52800 54000 (concat smp_indicies_45)"
  by (simp only: smp_indicies_45_def smp_late_trans_def row_arith)

lemma smp_indicies_45_place: "all1 smp_place 52800 54000 (concat smp_indicies_45)"
  by (rule all1_mono [OF smp_indicies_45_late]) (simp add: smp_place_late)

lemma smp_indicies_46_late: "all1 (\<lambda>i. smp_late_trans) 54000 55200 (concat smp_indicies_46)"
  by (simp only: smp_indicies_46_def smp_late_trans_def row_arith)

lemma smp_indicies_46_place: "all1 smp_place 54000 55200 (concat smp_indicies_46)"
  by (rule all1_mono [OF smp_indicies_46_late]) (simp add: smp_place_late)

lemma smp_indicies_47_late: "all1 (\<lambda>i. smp_late_trans) 55200 56400 (concat smp_indicies_47)"
  by (simp only: smp_indicies_47_def smp_late_trans_def row_arith)

lemma smp_indicies_47_place: "all1 smp_place 55200 56400 (concat smp_indicies_47)"
  by (rule all1_mono [OF smp_indicies_47_late]) (simp add: smp_place_late)

lemma smp_indicies_48_late: "all1 (\<lambda>i. smp_late_trans) 56400 57600 (concat smp_indicies_48)"
  by (simp only: smp_indicies_48_def smp_late_trans_def row_arith)

lemma smp_indicies_48_place: "all1 smp_place 56400 57600 (concat smp_indicies_48)"
  by (rule all1_mono [OF smp_indicies_48_late]) (simp add: smp_place_late)

lemma smp_indicies_49_late: "all1 (\<lambda>i. smp_late_trans) 57600 58800 (concat smp_indicies_49)"
  by (simp only: smp_indicies_49_def smp_late_trans_def row_arith)

lemma smp_indicies_49_place: "all1 smp_place 57600 58800 (concat smp_indicies_49)"
  by (rule all1_mono [OF smp_indicies_49_late]) (simp add: smp_place_late)

lemma smp_indicies_50_late: "all1 (\<lambda>i. smp_late_trans) 58800 60000 (concat smp_indicies_50)"
  by (simp only: smp_indicies_50_def smp_late_trans_def row_arith)

lemma smp_indicies_50_place: "all1 smp_place 58800 60000 (concat smp_indicies_50)"
  by (rule all1_mono [OF smp_indicies_50_late]) (simp add: smp_place_late)

lemma smp_indicies_51_late: "all1 (\<lambda>i. smp_late_trans) 60000 61200 (concat smp_indicies_51)"
  by (simp only: smp_indicies_51_def smp_late_trans_def row_arith)

lemma smp_indicies_51_place: "all1 smp_place 60000 61200 (concat smp_indicies_51)"
  by (rule all1_mono [OF smp_indicies_51_late]) (simp add: smp_place_late)

lemma smp_indicies_52_late: "all1 (\<lambda>i. smp_late_trans) 61200 62400 (concat smp_indicies_52)"
  by (simp only: smp_indicies_52_def smp_late_trans_def row_arith)

lemma smp_indicies_52_place: "all1 smp_place 61200 62400 (concat smp_indicies_52)"
  by (rule all1_mono [OF smp_indicies_52_late]) (simp add: smp_place_late)

lemma smp_indicies_53_late: "all1 (\<lambda>i. smp_late_trans) 62400 63600 (concat smp_indicies_53)"
  by (simp only: smp_indicies_53_def smp_late_trans_def row_arith)

lemma smp_indicies_53_place: "all1 smp_place 62400 63600 (concat smp_indicies_53)"
  by (rule all1_mono [OF smp_indicies_53_late]) (simp add: smp_place_late)

lemma smp_indicies_54_late: "all1 (\<lambda>i. smp_late_trans) 63600 64800 (concat smp_indicies_54)"
  by (simp only: smp_indicies_54_def smp_late_trans_def row_arith)

lemma smp_indicies_54_place: "all1 smp_place 63600 64800 (concat smp_indicies_54)"
  by (rule all1_mono [OF smp_indicies_54_late]) (simp add: smp_place_late)

lemma smp_indicies_55_late: "all1 (\<lambda>i. smp_late_trans) 64800 66000 (concat smp_indicies_55)"
  by (simp only: smp_indicies_55_def smp_late_trans_def row_arith)

lemma smp_indicies_55_place: "all1 smp_place 64800 66000 (concat smp_indicies_55)"
  by (rule all1_mono [OF smp_indicies_55_late]) (simp add: smp_place_late)

lemma smp_indicies_56_late: "all1 (\<lambda>i. smp_late_trans) 66000 67200 (concat smp_indicies_56)"
  by (simp only: smp_indicies_56_def smp_late_trans_def row_arith)

lemma smp_indicies_56_place: "all1 smp_place 66000 67200 (concat smp_indicies_56)"
  by (rule all1_mono [OF smp_indicies_56_late]) (simp add: smp_place_late)

lemma smp_indicies_57_late: "all1 (\<lambda>i. smp_late_trans) 67200 68400 (concat smp_indicies_57)"
  by (simp only: smp_indicies_57_def smp_late_trans_def row_arith)

lemma smp_indicies_57_place: "all1 smp_place 67200 68400 (concat smp_indicies_57)"
  by (rule all1_mono [OF smp_indicies_57_late]) (simp add: smp_place_late)

lemma smp_indicies_58_place: "all1 smp_place 68400 69600 (concat smp_indicies_58)"
  by (simp only: smp_indicies_58_def smp_place_def smp_early_place_def smp_early_trans_def smp_late_trans_def
      if_True if_False row_arith)

lemma smp_indicies_59_place: "all1 smp_place 69600 70161 (concat smp_indicies_59)"
  by (simp only: smp_indicies_59_def smp_place_def smp_early_place_def smp_early_trans_def smp_late_trans_def
      if_True if_False row_arith)

lemma smp_indicies_place: "all1 smp_place 0 70161 smp_indicies"
  unfolding smp_indicies_def
  by (intro all1_append)
    (rule
      smp_indicies_1_place smp_indicies_2_place smp_indicies_3_place smp_indicies_4_place
      smp_indicies_5_place smp_indicies_6_place smp_indicies_7_place smp_indicies_8_place
      smp_indicies_9_place smp_indicies_10_place smp_indicies_11_place smp_indicies_12_place
      smp_indicies_13_place smp_indicies_14_place smp_indicies_15_place smp_indicies_16_place
      smp_indicies_17_place smp_indicies_18_place smp_indicies_19_place smp_indicies_20_place
      smp_indicies_21_place smp_indicies_22_place smp_indicies_23_place smp_indicies_24_place
      smp_indicies_25_place smp_indicies_26_place smp_indicies_27_place smp_indicies_28_place
      smp_indicies_29_place smp_indicies_30_place smp_indicies_31_place smp_indicies_32_place
      smp_indicies_33_place smp_indicies_34_place smp_indicies_35_place smp_indicies_36_place
      smp_indicies_37_place smp_indicies_38_place smp_indicies_39_place smp_indicies_40_place
      smp_indicies_41_place smp_indicies_42_place smp_indicies_43_place smp_indicies_44_place
      smp_indicies_45_place smp_indicies_46_place smp_indicies_47_place smp_indicies_48_place
      smp_indicies_49_place smp_indicies_50_place smp_indicies_51_place smp_indicies_52_place
      smp_indicies_53_place smp_indicies_54_place smp_indicies_55_place smp_indicies_56_place
      smp_indicies_57_place smp_indicies_58_place smp_indicies_59_place)+

end
