(* ===== verification/Sip_Msg_Trans.thy ===== *)
theory Sip_Msg_Trans
  imports Sip_Msg_Early
begin

text \<open>
  The arrays of ext/sip_parser/sip_message_parser.c for conditions, actions and transitions, and what each
  transition does for the kind of the message.
\<close>

definition smp_cond_keys_1 :: "int list list" where
  "smp_cond_keys_1 =
    [[33, 33, 37, 37, 39, 39, 42, 42],
     [43, 43, 45, 45, 46, 46, 48, 57],
     [65, 65, 66, 66, 67, 67, 68, 72],
     [73, 73, 74, 76, 77, 77, 78, 78],
     [79, 79, 80, 80, 81, 81, 82, 82],
     [83, 83, 84, 84, 85, 85, 86, 90],
     [95, 95, 96, 96, 97, 122, 126, 126],
     [33, 33, 37, 37, 39, 39, 42, 42],
     [43, 43, 45, 45, 46, 46, 48, 57],
     [65, 65, 66, 66, 67, 67, 68, 72],
     [73, 73, 74, 76, 77, 77, 78, 78],
     [79, 79, 80, 80, 81, 81, 82, 82],
     [83, 83, 84, 84, 85, 85, 86, 90],
     [95, 95, 96, 96, 97, 122, 126, 126],
     [33, 33, 37, 37, 39, 39, 42, 42],
     [43, 43, 45, 45, 46, 46, 48, 57],
     [65, 90, 95, 95, 96, 96, 97, 122],
     [126, 126, 33, 33, 37, 37, 39, 39],
     [42, 42, 43, 43, 45, 45, 46, 46],
     [48, 57, 65, 66, 67, 67, 68, 90],
     [95, 95, 96, 96, 97, 122, 126, 126],
     [33, 33, 37, 37, 39, 39, 42, 42],
     [43, 43, 45, 45, 46, 46, 48, 57],
     [65, 74, 75, 75, 76, 90, 95, 95],
     [96, 96, 97, 122, 126, 126, 33, 33],
     [37, 37, 39, 39, 42, 42, 43, 43],
     [45, 45, 46, 46, 48, 57, 65, 90],
     [95, 95, 96, 96, 97, 122, 126, 126],
     [33, 33, 37, 37, 39, 39, 42, 42],
     [43, 43, 45, 45, 46, 46, 48, 57],
     [65, 88, 89, 89, 90, 90, 95, 95],
     [96, 96, 97, 122, 126, 126, 33, 33],
     [37, 37, 39, 39, 42, 42, 43, 43],
     [45, 45, 46, 46, 48, 57, 65, 68],
     [69, 69, 70, 90, 95, 95, 96, 96],
     [97, 122, 126, 126, 33, 33, 37, 37],
     [39, 39, 42, 42, 43, 43, 45, 45],
     [46, 46, 48, 57, 65, 90, 95, 95],
     [96, 96, 97, 122, 126, 126, 33, 33],
     [37, 37, 39, 39, 42, 42, 43, 43],
     [45, 45, 46, 46, 48, 57, 65, 65],
     [66, 90, 95, 95, 96, 96, 97, 122],
     [126, 126, 33, 33, 37, 37, 39, 39],
     [42, 42, 43, 43, 45, 45, 46, 46],
     [48, 57, 65, 77, 78, 78, 79, 90],
     [95, 95, 96, 96, 97, 122, 126, 126],
     [33, 33, 37, 37, 39, 39, 42, 42],
     [43, 43, 45, 45, 46, 46, 48, 57],
     [65, 66, 67, 67, 68, 90, 95, 95],
     [96, 96, 97, 122, 126, 126, 33, 33],
     [37, 37, 39, 39, 42, 42, 43, 43],
     [45, 45, 46, 46, 48, 57, 65, 68],
     [69, 69, 70, 90, 95, 95, 96, 96],
     [97, 122, 126, 126, 33, 33, 37, 37],
     [39, 39, 42, 42, 43, 43, 45, 45],
     [46, 46, 48, 57, 65, 75, 76, 76],
     [77, 90, 95, 95, 96, 96, 97, 122],
     [126, 126, 33, 33, 37, 37, 39, 39],
     [42, 42, 43, 43, 45, 45, 46, 46],
     [48, 57, 65, 90, 95, 95, 96, 96],
     [97, 122, 126, 126, 33, 33, 37, 37],
     [39, 39, 42, 42, 43, 43, 45, 45],
     [46, 46, 48, 57, 65, 77, 78, 78],
     [79, 90, 95, 95, 96, 96, 97, 122],
     [126, 126, 33, 33, 37, 37, 39, 39],
     [42, 42, 43, 43, 45, 45, 46, 46],
     [48, 57, 65, 69, 70, 70, 71, 85],
     [86, 86, 87, 90, 95, 95, 96, 96],
     [97, 122, 126, 126, 33, 33, 37, 37],
     [39, 39, 42, 42, 43, 43, 45, 45],
     [46, 46, 48, 57, 65, 78, 79, 79],
     [80, 90, 95, 95, 96, 96, 97, 122],
     [126, 126, 33, 33, 37, 37, 39, 39],
     [42, 42, 43, 43, 45, 45, 46, 46],
     [48, 57, 65, 90, 95, 95, 96, 96],
     [97, 122, 126, 126, 33, 33, 37, 37],
     [39, 39, 42, 42, 43, 43, 45, 45],
     [46, 46, 48, 57, 65, 72, 73, 73],
     [74, 90, 95, 95, 96, 96, 97, 122],
     [126, 126, 33, 33, 37, 37, 39, 39],
     [42, 42, 43, 43, 45, 45, 46, 46],
     [48, 57, 65, 83, 84, 84, 85, 90],
     [95, 95, 96, 96, 97, 122, 126, 126],
     [33, 33, 37, 37, 39, 39, 42, 42],
     [43, 43, 45, 45, 46, 46, 48, 57],
     [65, 68, 69, 69, 70, 90, 95, 95],
     [96, 96, 97, 122, 126, 126, 33, 33],
     [37, 37, 39, 39, 42, 42, 43, 43],
     [45, 45, 46, 46, 48, 57, 65, 90],
     [95, 95, 96, 96, 97, 122, 126, 126],
     [33, 33, 37, 37, 39, 39, 42, 42],
     [43, 43, 45, 45, 46, 46, 48, 57],
     [65, 68, 69, 69, 70, 90, 95, 95],
     [96, 96, 97, 122, 126, 126, 33, 33],
     [37, 37, 39, 39, 42, 42, 43, 43],
     [45, 45, 46, 46, 48, 57, 65, 82],
     [83, 83, 84, 90, 95, 95, 96, 96],
     [97, 122, 126, 126, 33, 33, 37, 37],
     [39, 39, 42, 42, 43, 43, 45, 45],
     [46, 46, 48, 57, 65, 82, 83, 83],
     [84, 90, 95, 95, 96, 96, 97, 122],
     [126, 126, 33, 33, 37, 37, 39, 39],
     [42, 42, 43, 43, 45, 45, 46, 46],
     [48, 57, 65, 65, 66, 90, 95, 95],
     [96, 96, 97, 122, 126, 126, 33, 33],
     [37, 37, 39, 39, 42, 42, 43, 43],
     [45, 45, 46, 46, 48, 57, 65, 70],
     [71, 71, 72, 90, 95, 95, 96, 96],
     [97, 122, 126, 126, 33, 33, 37, 37],
     [39, 39, 42, 42, 43, 43, 45, 45],
     [46, 46, 48, 57, 65, 68, 69, 69],
     [70, 90, 95, 95, 96, 96, 97, 122],
     [126, 126, 33, 33, 37, 37, 39, 39],
     [42, 42, 43, 43, 45, 45, 46, 46],
     [48, 57, 65, 90, 95, 95, 96, 96],
     [97, 122, 126, 126, 33, 33, 37, 37],
     [39, 39, 42, 42, 43, 43, 45, 45],
     [46, 46, 48, 57, 65, 78, 79, 79],
     [80, 90, 95, 95, 96, 96, 97, 122],
     [126, 126, 33, 33, 37, 37, 39, 39],
     [42, 42, 43, 43, 45, 45, 46, 46],
     [48, 57, 65, 83, 84, 84, 85, 90],
     [95, 95, 96, 96, 97, 122, 126, 126],
     [33, 33, 37, 37, 39, 39, 42, 42],
     [43, 43, 45, 45, 46, 46, 48, 57],
     [65, 72, 73, 73, 74, 90, 95, 95],
     [96, 96, 97, 122, 126, 126, 33, 33],
     [37, 37, 39, 39, 42, 42, 43, 43],
     [45, 45, 46, 46, 48, 57, 65, 69],
     [70, 70, 71, 90, 95, 95, 96, 96],
     [97, 122, 126, 126, 33, 33, 37, 37],
     [39, 39, 42, 42, 43, 43, 45, 45],
     [46, 46, 48, 57, 65, 88, 89, 89],
     [90, 90, 95, 95, 96, 96, 97, 122],
     [126, 126, 33, 33, 37, 37, 39, 39],
     [42, 42, 43, 43, 45, 45, 46, 46],
     [48, 57, 65, 90, 95, 95, 96, 96],
     [97, 122, 126, 126, 33, 33, 37, 37],
     [39, 39, 42, 42, 43, 43, 45, 45],
     [46, 46, 48, 57, 65, 79, 80, 80],
     [81, 90, 95, 95, 96, 96, 97, 122],
     [126, 126, 33, 33, 37, 37, 39, 39],
     [42, 42, 43, 43, 45, 45, 46, 46],
     [48, 57, 65, 83, 84, 84, 85, 90],
     [95, 95, 96, 96, 97, 122, 126, 126],
     [33, 33, 37, 37, 39, 39, 42, 42],
     [43, 43, 45, 45, 46, 46, 48, 57],
     [65, 72, 73, 73, 74, 90, 95, 95],
     [96, 96, 97, 122, 126, 126, 33, 33],
     [37, 37, 39, 39, 42, 42, 43, 43]]"

definition smp_cond_keys_2 :: "int list list" where
  "smp_cond_keys_2 =
    [[45, 45, 46, 46, 48, 57, 65, 78],
     [79, 79, 80, 90, 95, 95, 96, 96],
     [97, 122, 126, 126, 33, 33, 37, 37],
     [39, 39, 42, 42, 43, 43, 45, 45],
     [46, 46, 48, 57, 65, 77, 78, 78],
     [79, 90, 95, 95, 96, 96, 97, 122],
     [126, 126, 33, 33, 37, 37, 39, 39],
     [42, 42, 43, 43, 45, 45, 46, 46],
     [48, 57, 65, 82, 83, 83, 84, 90],
     [95, 95, 96, 96, 97, 122, 126, 126],
     [33, 33, 37, 37, 39, 39, 42, 42],
     [43, 43, 45, 45, 46, 46, 48, 57],
     [65, 90, 95, 95, 96, 96, 97, 122],
     [126, 126, 33, 33, 37, 37, 39, 39],
     [42, 42, 43, 43, 45, 45, 46, 46],
     [48, 57, 65, 81, 82, 82, 83, 84],
     [85, 85, 86, 90, 95, 95, 96, 96],
     [97, 122, 126, 126, 33, 33, 37, 37],
     [39, 39, 42, 42, 43, 43, 45, 45],
     [46, 46, 48, 57, 65, 65, 66, 90],
     [95, 95, 96, 96, 97, 122, 126, 126],
     [33, 33, 37, 37, 39, 39, 42, 42],
     [43, 43, 45, 45, 46, 46, 48, 57],
     [65, 66, 67, 67, 68, 90, 95, 95],
     [96, 96, 97, 122, 126, 126, 33, 33],
     [37, 37, 39, 39, 42, 42, 43, 43],
     [45, 45, 46, 46, 48, 57, 65, 74],
     [75, 75, 76, 90, 95, 95, 96, 96],
     [97, 122, 126, 126, 33, 33, 37, 37],
     [39, 39, 42, 42, 43, 43, 45, 45],
     [46, 46, 48, 57, 65, 90, 95, 95],
     [96, 96, 97, 122, 126, 126, 33, 33],
     [37, 37, 39, 39, 42, 42, 43, 43],
     [45, 45, 46, 46, 48, 57, 65, 65],
     [66, 66, 67, 75, 76, 76, 77, 82],
     [83, 83, 84, 90, 95, 95, 96, 96],
     [97, 122, 126, 126, 33, 33, 37, 37],
     [39, 39, 42, 42, 43, 43, 45, 45],
     [46, 46, 48, 57, 65, 75, 76, 76],
     [77, 90, 95, 95, 96, 96, 97, 122],
     [126, 126, 33, 33, 37, 37, 39, 39],
     [42, 42, 43, 43, 45, 45, 46, 46],
     [48, 57, 65, 72, 73, 73, 74, 90],
     [95, 95, 96, 96, 97, 122, 126, 126],
     [33, 33, 37, 37, 39, 39, 42, 42],
     [43, 43, 45, 45, 46, 46, 48, 57],
     [65, 82, 83, 83, 84, 90, 95, 95],
     [96, 96, 97, 122, 126, 126, 33, 33],
     [37, 37, 39, 39, 42, 42, 43, 43],
     [45, 45, 46, 46, 48, 57, 65, 71],
     [72, 72, 73, 90, 95, 95, 96, 96],
     [97, 122, 126, 126, 33, 33, 37, 37],
     [39, 39, 42, 42, 43, 43, 45, 45],
     [46, 46, 48, 57, 65, 90, 95, 95],
     [96, 96, 97, 122, 126, 126, 33, 33],
     [37, 37, 39, 39, 42, 42, 43, 43],
     [45, 45, 46, 46, 48, 57, 65, 75],
     [76, 76, 77, 90, 95, 95, 96, 96],
     [97, 122, 126, 126, 33, 33, 37, 37],
     [39, 39, 42, 42, 43, 43, 45, 45],
     [46, 46, 48, 57, 65, 90, 95, 95],
     [96, 96, 97, 122, 126, 126, 33, 33],
     [37, 37, 39, 39, 42, 42, 43, 43],
     [45, 45, 46, 46, 48, 57, 65, 71],
     [72, 72, 73, 90, 95, 95, 96, 96],
     [97, 122, 126, 126, 33, 33, 37, 37],
     [39, 39, 42, 42, 43, 43, 45, 45],
     [46, 46, 48, 57, 65, 90, 95, 95],
     [96, 96, 97, 122, 126, 126, 33, 33],
     [37, 37, 39, 39, 42, 42, 43, 43],
     [45, 45, 46, 46, 48, 57, 65, 68],
     [69, 69, 70, 90, 95, 95, 96, 96],
     [97, 122, 126, 126, 33, 33, 37, 37],
     [39, 39, 42, 42, 43, 43, 45, 45],
     [46, 46, 48, 57, 65, 69, 70, 70],
     [71, 71, 72, 90, 95, 95, 96, 96],
     [97, 122, 126, 126, 33, 33, 37, 37],
     [39, 39, 42, 42, 43, 43, 45, 45],
     [46, 46, 48, 57, 65, 68, 69, 69],
     [70, 90, 95, 95, 96, 96, 97, 122],
     [126, 126, 33, 33, 37, 37, 39, 39],
     [42, 42, 43, 43, 45, 45, 46, 46],
     [48, 57, 65, 81, 82, 82, 83, 90],
     [95, 95, 96, 96, 97, 122, 126, 126],
     [33, 33, 37, 37, 39, 39, 42, 42],
     [43, 43, 45, 45, 46, 46, 48, 57],
     [65, 90, 95, 95, 96, 96, 97, 122],
     [126, 126, 33, 33, 37, 37, 39, 39],
     [42, 42, 43, 43, 45, 45, 46, 46],
     [48, 57, 65, 72, 73, 73, 74, 90],
     [95, 95, 96, 96, 97, 122, 126, 126],
     [33, 33, 37, 37, 39, 39, 42, 42],
     [43, 43, 45, 45, 46, 46, 48, 57],
     [65, 82, 83, 83, 84, 90, 95, 95],
     [96, 96, 97, 122, 126, 126, 33, 33],
     [37, 37, 39, 39, 42, 42, 43, 43],
     [45, 45, 46, 46, 48, 57, 65, 83],
     [84, 84, 85, 90, 95, 95, 96, 96],
     [97, 122, 126, 126, 33, 33, 37, 37],
     [39, 39, 42, 42, 43, 43, 45, 45],
     [46, 46, 48, 57, 65, 68, 69, 69],
     [70, 90, 95, 95, 96, 96, 97, 122],
     [126, 126, 33, 33, 37, 37, 39, 39],
     [42, 42, 43, 43, 45, 45, 46, 46],
     [48, 57, 65, 81, 82, 82, 83, 90],
     [95, 95, 96, 96, 97, 122, 126, 126],
     [33, 33, 37, 37, 39, 39, 42, 42],
     [43, 43, 45, 45, 46, 46, 48, 57],
     [65, 90, 95, 95, 96, 96, 97, 122],
     [126, 126, 33, 33, 37, 37, 39, 39],
     [42, 42, 43, 43, 45, 45, 46, 46],
     [48, 57, 65, 83, 84, 84, 85, 85],
     [86, 90, 95, 95, 96, 96, 97, 122],
     [126, 126, 33, 33, 37, 37, 39, 39],
     [42, 42, 43, 43, 45, 45, 46, 46],
     [48, 57, 65, 78, 79, 79, 80, 90],
     [95, 95, 96, 96, 97, 122, 126, 126],
     [33, 33, 37, 37, 39, 39, 42, 42],
     [43, 43, 45, 45, 46, 46, 48, 57],
     [65, 81, 82, 82, 83, 90, 95, 95],
     [96, 96, 97, 122, 126, 126, 33, 33],
     [37, 37, 39, 39, 42, 42, 43, 43],
     [45, 45, 46, 46, 48, 57, 65, 68],
     [69, 69, 70, 90, 95, 95, 96, 96],
     [97, 122, 126, 126, 33, 33, 37, 37],
     [39, 39, 42, 42, 43, 43, 45, 45],
     [46, 46, 48, 57, 65, 90, 95, 95],
     [96, 96, 97, 122, 126, 126, 33, 33],
     [37, 37, 39, 39, 42, 42, 43, 43],
     [45, 45, 46, 46, 48, 57, 65, 65],
     [66, 66, 67, 90, 95, 95, 96, 96],
     [97, 122, 126, 126, 33, 33, 37, 37],
     [39, 39, 42, 42, 43, 43, 45, 45],
     [46, 46, 48, 57, 65, 82, 83, 83],
     [84, 90, 95, 95, 96, 96, 97, 122],
     [126, 126, 33, 33, 37, 37, 39, 39],
     [42, 42, 43, 43, 45, 45, 46, 46],
     [48, 57, 65, 66, 67, 67, 68, 90],
     [95, 95, 96, 96, 97, 122, 126, 126],
     [33, 33, 37, 37, 39, 39, 42, 42],
     [43, 43, 45, 45, 46, 46, 48, 57],
     [65, 81, 82, 82, 83, 90, 95, 95],
     [96, 96, 97, 122, 126, 126, 33, 33],
     [37, 37, 39, 39, 42, 42, 43, 43],
     [45, 45, 46, 46, 48, 57, 65, 72],
     [73, 73, 74, 90, 95, 95, 96, 96],
     [97, 122, 126, 126, 33, 33, 37, 37],
     [39, 39, 42, 42, 43, 43, 45, 45],
     [46, 46, 48, 57, 65, 65, 66, 66],
     [67, 90, 95, 95, 96, 96, 97, 122]]"

definition smp_cond_keys_3 :: "int list list" where
  "smp_cond_keys_3 =
    [[126, 126, 33, 33, 37, 37, 39, 39],
     [42, 42, 43, 43, 45, 45, 46, 46],
     [48, 57, 65, 68, 69, 69, 70, 90],
     [95, 95, 96, 96, 97, 122, 126, 126],
     [33, 33, 37, 37, 39, 39, 42, 42],
     [43, 43, 45, 45, 46, 46, 48, 57],
     [65, 90, 95, 95, 96, 96, 97, 122],
     [126, 126, 33, 33, 37, 37, 39, 39],
     [42, 42, 43, 43, 45, 45, 46, 46],
     [48, 57, 65, 79, 80, 80, 81, 90],
     [95, 95, 96, 96, 97, 122, 126, 126],
     [33, 33, 37, 37, 39, 39, 42, 42],
     [43, 43, 45, 45, 46, 46, 48, 57],
     [65, 67, 68, 68, 69, 90, 95, 95],
     [96, 96, 97, 122, 126, 126, 33, 33],
     [37, 37, 39, 39, 42, 42, 43, 43],
     [45, 45, 46, 46, 48, 57, 65, 65],
     [66, 90, 95, 95, 96, 96, 97, 122],
     [126, 126, 33, 33, 37, 37, 39, 39],
     [42, 42, 43, 43, 45, 45, 46, 46],
     [48, 57, 65, 83, 84, 84, 85, 90],
     [95, 95, 96, 96, 97, 122, 126, 126],
     [33, 33, 37, 37, 39, 39, 42, 42],
     [43, 43, 45, 45, 46, 46, 48, 57],
     [65, 68, 69, 69, 70, 90, 95, 95],
     [96, 96, 97, 122, 126, 126, 33, 33],
     [37, 37, 39, 39, 42, 42, 43, 43],
     [45, 45, 46, 46, 48, 57, 65, 90],
     [95, 95, 96, 96, 97, 122, 126, 126],
     [33, 33, 37, 37, 39, 39, 42, 42],
     [43, 43, 45, 45, 46, 46, 48, 57],
     [65, 90, 95, 95, 96, 96, 97, 122],
     [126, 126, 0]]"

definition smp_cond_keys :: "int list" where
  "smp_cond_keys =
     concat smp_cond_keys_1 @ concat smp_cond_keys_2 @ concat smp_cond_keys_3"

lemma smp_cond_keys_1_length: "int (length (concat smp_cond_keys_1)) = 1200"
  unfolding rows_length smp_cond_keys_1_def by (simp only: row_arith)

lemma smp_cond_keys_2_length: "int (length (concat smp_cond_keys_2)) = 1200"
  unfolding rows_length smp_cond_keys_2_def by (simp only: row_arith)

lemma smp_cond_keys_3_length: "int (length (concat smp_cond_keys_3)) = 259"
  unfolding rows_length smp_cond_keys_3_def by (simp only: row_arith)

lemma smp_cond_keys_length: "int (length smp_cond_keys) = 2659"
  by (simp only: smp_cond_keys_def length_append of_nat_add row_arith
      smp_cond_keys_1_length smp_cond_keys_2_length smp_cond_keys_3_length)

definition smp_cond_spaces_1 :: "int list list" where
  "smp_cond_spaces_1 =
    [[0, 0, 0, 0, 0, 0, 0, 0],
     [0, 0, 0, 0, 0, 0, 0, 0],
     [0, 0, 0, 0, 0, 0, 0, 0],
     [0, 0, 0, 0, 0, 0, 0, 0],
     [0, 0, 0, 0, 0, 0, 0, 0],
     [0, 0, 0, 0, 0, 0, 0, 0],
     [0, 0, 0, 0, 0, 0, 0, 0],
     [0, 0, 0, 0, 0, 0, 0, 0],
     [0, 0, 0, 0, 0, 0, 0, 0],
     [0, 0, 0, 0, 0, 0, 0, 0],
     [0, 0, 0, 0, 0, 0, 0, 0],
     [0, 0, 0, 0, 0, 0, 0, 0],
     [0, 0, 0, 0, 0, 0, 0, 0],
     [0, 0, 0, 0, 0, 0, 0, 0],
     [0, 0, 0, 0, 0, 0, 0, 0],
     [0, 0, 0, 0, 0, 0, 0, 0],
     [0, 0, 0, 0, 0, 0, 0, 0],
     [0, 0, 0, 0, 0, 0, 0, 0],
     [0, 0, 0, 0, 0, 0, 0, 0],
     [0, 0, 0, 0, 0, 0, 0, 0],
     [0, 0, 0, 0, 0, 0, 0, 0],
     [0, 0, 0, 0, 0, 0, 0, 0],
     [0, 0, 0, 0, 0, 0, 0, 0],
     [0, 0, 0, 0, 0, 0, 0, 0],
     [0, 0, 0, 0, 0, 0, 0, 0],
     [0, 0, 0, 0, 0, 0, 0, 0],
     [0, 0, 0, 0, 0, 0, 0, 0],
     [0, 0, 0, 0, 0, 0, 0, 0],
     [0, 0, 0, 0, 0, 0, 0, 0],
     [0, 0, 0, 0, 0, 0, 0, 0],
     [0, 0, 0, 0, 0, 0, 0, 0],
     [0, 0, 0, 0, 0, 0, 0, 0],
     [0, 0, 0, 0, 0, 0, 0, 0],
     [0, 0, 0, 0, 0, 0, 0, 0],
     [0, 0, 0, 0, 0, 0, 0, 0],
     [0, 0, 0, 0, 0, 0, 0, 0],
     [0, 0, 0, 0, 0, 0, 0, 0],
     [0, 0, 0, 0, 0, 0, 0, 0],
     [0, 0, 0, 0, 0, 0, 0, 0],
     [0, 0, 0, 0, 0, 0, 0, 0],
     [0, 0, 0, 0, 0, 0, 0, 0],
     [0, 0, 0, 0, 0, 0, 0, 0],
     [0, 0, 0, 0, 0, 0, 0, 0],
     [0, 0, 0, 0, 0, 0, 0, 0],
     [0, 0, 0, 0, 0, 0, 0, 0],
     [0, 0, 0, 0, 0, 0, 0, 0],
     [0, 0, 0, 0, 0, 0, 0, 0],
     [0, 0, 0, 0, 0, 0, 0, 0],
     [0, 0, 0, 0, 0, 0, 0, 0],
     [0, 0, 0, 0, 0, 0, 0, 0],
     [0, 0, 0, 0, 0, 0, 0, 0],
     [0, 0, 0, 0, 0, 0, 0, 0],
     [0, 0, 0, 0, 0, 0, 0, 0],
     [0, 0, 0, 0, 0, 0, 0, 0],
     [0, 0, 0, 0, 0, 0, 0, 0],
     [0, 0, 0, 0, 0, 0, 0, 0],
     [0, 0, 0, 0, 0, 0, 0, 0],
     [0, 0, 0, 0, 0, 0, 0, 0],
     [0, 0, 0, 0, 0, 0, 0, 0],
     [0, 0, 0, 0, 0, 0, 0, 0],
     [0, 0, 0, 0, 0, 0, 0, 0],
     [0, 0, 0, 0, 0, 0, 0, 0],
     [0, 0, 0, 0, 0, 0, 0, 0],
     [0, 0, 0, 0, 0, 0, 0, 0],
     [0, 0, 0, 0, 0, 0, 0, 0],
     [0, 0, 0, 0, 0, 0, 0, 0],
     [0, 0, 0, 0, 0, 0, 0, 0],
     [0, 0, 0, 0, 0, 0, 0, 0],
     [0, 0, 0, 0, 0, 0, 0, 0],
     [0, 0, 0, 0, 0, 0, 0, 0],
     [0, 0, 0, 0, 0, 0, 0, 0],
     [0, 0, 0, 0, 0, 0, 0, 0],
     [0, 0, 0, 0, 0, 0, 0, 0],
     [0, 0, 0, 0, 0, 0, 0, 0],
     [0, 0, 0, 0, 0, 0, 0, 0],
     [0, 0, 0, 0, 0, 0, 0, 0],
     [0, 0, 0, 0, 0, 0, 0, 0],
     [0, 0, 0, 0, 0, 0, 0, 0],
     [0, 0, 0, 0, 0, 0, 0, 0],
     [0, 0, 0, 0, 0, 0, 0, 0],
     [0, 0, 0, 0, 0, 0, 0, 0],
     [0, 0, 0, 0, 0, 0, 0, 0],
     [0, 0, 0, 0, 0, 0, 0, 0],
     [0, 0, 0, 0, 0, 0, 0, 0],
     [0, 0, 0, 0, 0, 0, 0, 0],
     [0, 0, 0, 0, 0, 0, 0, 0],
     [0, 0, 0, 0, 0, 0, 0, 0],
     [0, 0, 0, 0, 0, 0, 0, 0],
     [0, 0, 0, 0, 0, 0, 0, 0],
     [0, 0, 0, 0, 0, 0, 0, 0],
     [0, 0, 0, 0, 0, 0, 0, 0],
     [0, 0, 0, 0, 0, 0, 0, 0],
     [0, 0, 0, 0, 0, 0, 0, 0],
     [0, 0, 0, 0, 0, 0, 0, 0],
     [0, 0, 0, 0, 0, 0, 0, 0],
     [0, 0, 0, 0, 0, 0, 0, 0],
     [0, 0, 0, 0, 0, 0, 0, 0],
     [0, 0, 0, 0, 0, 0, 0, 0],
     [0, 0, 0, 0, 0, 0, 0, 0],
     [0, 0, 0, 0, 0, 0, 0, 0],
     [0, 0, 0, 0, 0, 0, 0, 0],
     [0, 0, 0, 0, 0, 0, 0, 0],
     [0, 0, 0, 0, 0, 0, 0, 0],
     [0, 0, 0, 0, 0, 0, 0, 0],
     [0, 0, 0, 0, 0, 0, 0, 0],
     [0, 0, 0, 0, 0, 0, 0, 0],
     [0, 0, 0, 0, 0, 0, 0, 0],
     [0, 0, 0, 0, 0, 0, 0, 0],
     [0, 0, 0, 0, 0, 0, 0, 0],
     [0, 0, 0, 0, 0, 0, 0, 0],
     [0, 0, 0, 0, 0, 0, 0, 0],
     [0, 0, 0, 0, 0, 0, 0, 0],
     [0, 0, 0, 0, 0, 0, 0, 0],
     [0, 0, 0, 0, 0, 0, 0, 0],
     [0, 0, 0, 0, 0, 0, 0, 0],
     [0, 0, 0, 0, 0, 0, 0, 0],
     [0, 0, 0, 0, 0, 0, 0, 0],
     [0, 0, 0, 0, 0, 0, 0, 0],
     [0, 0, 0, 0, 0, 0, 0, 0],
     [0, 0, 0, 0, 0, 0, 0, 0],
     [0, 0, 0, 0, 0, 0, 0, 0],
     [0, 0, 0, 0, 0, 0, 0, 0],
     [0, 0, 0, 0, 0, 0, 0, 0],
     [0, 0, 0, 0, 0, 0, 0, 0],
     [0, 0, 0, 0, 0, 0, 0, 0],
     [0, 0, 0, 0, 0, 0, 0, 0],
     [0, 0, 0, 0, 0, 0, 0, 0],
     [0, 0, 0, 0, 0, 0, 0, 0],
     [0, 0, 0, 0, 0, 0, 0, 0],
     [0, 0, 0, 0, 0, 0, 0, 0],
     [0, 0, 0, 0, 0, 0, 0, 0],
     [0, 0, 0, 0, 0, 0, 0, 0],
     [0, 0, 0, 0, 0, 0, 0, 0],
     [0, 0, 0, 0, 0, 0, 0, 0],
     [0, 0, 0, 0, 0, 0, 0, 0],
     [0, 0, 0, 0, 0, 0, 0, 0],
     [0, 0, 0, 0, 0, 0, 0, 0],
     [0, 0, 0, 0, 0, 0, 0, 0],
     [0, 0, 0, 0, 0, 0, 0, 0],
     [0, 0, 0, 0, 0, 0, 0, 0],
     [0, 0, 0, 0, 0, 0, 0, 0],
     [0, 0, 0, 0, 0, 0, 0, 0],
     [0, 0, 0, 0, 0, 0, 0, 0],
     [0, 0, 0, 0, 0, 0, 0, 0],
     [0, 0, 0, 0, 0, 0, 0, 0],
     [0, 0, 0, 0, 0, 0, 0, 0],
     [0, 0, 0, 0, 0, 0, 0, 0],
     [0, 0, 0, 0, 0, 0, 0, 0],
     [0, 0, 0, 0, 0, 0, 0, 0],
     [0, 0, 0, 0, 0, 0, 0, 0]]"

definition smp_cond_spaces_2 :: "int list list" where
  "smp_cond_spaces_2 =
    [[0, 0, 0, 0, 0, 0, 0, 0],
     [0, 0, 0, 0, 0, 0, 0, 0],
     [0, 0, 0, 0, 0, 0, 0, 0],
     [0, 0, 0, 0, 0, 0, 0, 0],
     [0, 0, 0, 0, 0, 0, 0, 0],
     [0, 0, 0, 0, 0, 0, 0, 0],
     [0, 0, 0, 0, 0, 0, 0, 0],
     [0, 0, 0, 0, 0, 0, 0, 0],
     [0, 0, 0, 0, 0, 0, 0, 0],
     [0, 0, 0, 0, 0, 0, 0, 0],
     [0, 0, 0, 0, 0, 0, 0, 0],
     [0, 0, 0, 0, 0, 0, 0, 0],
     [0, 0, 0, 0, 0, 0, 0, 0],
     [0, 0, 0, 0, 0, 0, 0, 0],
     [0, 0, 0, 0, 0, 0, 0, 0],
     [0, 0, 0, 0, 0, 0, 0, 0],
     [0, 0]]"

definition smp_cond_spaces :: "int list" where
  "smp_cond_spaces =
     concat smp_cond_spaces_1 @ concat smp_cond_spaces_2"

lemma smp_cond_spaces_1_length: "int (length (concat smp_cond_spaces_1)) = 1200"
  unfolding rows_length smp_cond_spaces_1_def by (simp only: row_arith)

lemma smp_cond_spaces_2_length: "int (length (concat smp_cond_spaces_2)) = 130"
  unfolding rows_length smp_cond_spaces_2_def by (simp only: row_arith)

lemma smp_cond_spaces_length: "int (length smp_cond_spaces) = 1330"
  by (simp only: smp_cond_spaces_def length_append of_nat_add row_arith
      smp_cond_spaces_1_length smp_cond_spaces_2_length)

definition smp_actions_1 :: "int list list" where
  "smp_actions_1 =
    [[0, 1, 3, 1, 5, 1, 6, 1],
     [7, 1, 8, 1, 28, 1, 29, 1],
     [30, 1, 31, 1, 32, 1, 33, 1],
     [37, 1, 39, 1, 40, 1, 41, 1],
     [42, 1, 43, 1, 49, 1, 59, 1],
     [60, 1, 61, 1, 62, 1, 63, 1],
     [64, 1, 65, 1, 66, 1, 77, 1],
     [80, 1, 81, 1, 84, 1, 93, 1],
     [94, 1, 102, 1, 104, 1, 105, 1],
     [106, 1, 107, 1, 108, 2, 1, 28],
     [2, 2, 108, 2, 3, 30, 2, 5],
     [35, 2, 5, 46, 2, 5, 48, 2],
     [5, 50, 2, 5, 52, 2, 6, 3],
     [2, 6, 7, 2, 6, 89, 2, 6],
     [92, 2, 6, 97, 2, 6, 100, 2],
     [8, 4, 2, 32, 45, 2, 34, 45],
     [2, 36, 6, 2, 37, 44, 2, 38],
     [44, 2, 39, 7, 2, 41, 7, 2],
     [42, 7, 2, 43, 7, 2, 47, 7],
     [2, 51, 7, 2, 53, 7, 2, 54],
     [58, 2, 55, 58, 2, 57, 58, 2],
     [59, 84, 2, 60, 3, 2, 60, 84],
     [2, 61, 3, 2, 61, 84, 2, 62],
     [3, 2, 62, 84, 2, 63, 3, 2],
     [63, 84, 2, 65, 68, 2, 65, 78],
     [2, 65, 79, 2, 66, 3, 2, 67],
     [68, 2, 69, 84, 2, 77, 3, 2],
     [77, 84, 2, 80, 3, 2, 80, 84],
     [2, 81, 7, 2, 83, 3, 2, 84],
     [7, 2, 93, 7, 2, 94, 7, 2],
     [105, 7, 2, 106, 7, 2, 107, 7],
     [3, 5, 87, 88, 3, 5, 90, 91],
     [3, 5, 95, 96, 3, 5, 99, 98],
     [3, 6, 89, 3, 3, 6, 92, 3],
     [3, 6, 97, 3, 3, 6, 100, 3],
     [3, 6, 100, 7, 3, 8, 36, 6],
     [3, 26, 27, 7, 3, 32, 45, 7],
     [3, 34, 45, 7, 3, 37, 44, 7],
     [3, 38, 44, 7, 3, 56, 58, 3],
     [3, 59, 84, 7, 3, 60, 84, 3],
     [3, 60, 84, 7, 3, 61, 84, 3],
     [3, 61, 84, 7, 3, 62, 84, 3],
     [3, 62, 84, 7, 3, 63, 84, 3],
     [3, 63, 84, 7, 3, 65, 68, 3],
     [3, 65, 68, 78, 3, 65, 68, 79],
     [3, 65, 68, 84, 3, 67, 68, 3],
     [3, 67, 68, 70, 3, 67, 68, 71],
     [3, 67, 68, 72, 3, 67, 68, 73],
     [3, 67, 68, 74, 3, 67, 68, 75],
     [3, 67, 68, 76, 3, 67, 68, 77],
     [3, 67, 68, 80, 3, 67, 68, 84],
     [3, 86, 83, 3, 3, 101, 103, 7],
     [4, 3, 101, 103, 7, 4, 6, 89],
     [3, 82, 4, 6, 89, 3, 83, 4],
     [6, 92, 3, 82, 4, 6, 92, 3],
     [83, 4, 6, 97, 3, 82, 4, 6],
     [100, 3, 82, 4, 6, 100, 3, 83],
     [4, 8, 99, 6, 100, 4, 9, 26],
     [27, 7, 4, 10, 26, 27, 7, 4],
     [11, 26, 27, 7, 4, 12, 26, 27],
     [7, 4, 13, 26, 27, 7, 4, 14],
     [26, 27, 7, 4, 15, 26, 27, 7],
     [4, 16, 26, 27, 7, 4, 17, 26],
     [27, 7, 4, 18, 26, 27, 7, 4],
     [19, 26, 27, 7, 4, 20, 26, 27],
     [7, 4, 21, 26, 27, 7, 4, 22],
     [26, 27, 7, 4, 23, 26, 27, 7],
     [4, 24, 26, 27, 7, 4, 25, 26],
     [27, 7, 4, 26, 0, 27, 85, 4],
     [65, 68, 78, 3, 4, 65, 68, 78],
     [84, 4, 65, 68, 79, 3, 4, 65],
     [68, 79, 84, 4, 67, 68, 70, 84],
     [4, 67, 68, 71, 3, 4, 67, 68],
     [71, 84, 4, 67, 68, 72, 3, 4],
     [67, 68, 72, 84, 4, 67, 68, 73],
     [3, 4, 67, 68, 73, 84, 4, 67],
     [68, 74, 3, 4, 67, 68, 74, 84],
     [4, 67, 68, 75, 3, 4, 67, 68],
     [75, 84, 4, 67, 68, 76, 3, 4],
     [67, 68, 76, 84, 4, 67, 68, 77],
     [3, 4, 67, 68, 77, 84, 4, 67],
     [68, 80, 3, 4, 67, 68, 80, 84],
     [4, 96, 8, 6, 97, 4, 101, 103],
     [7, 104, 4, 102, 101, 103, 7, 5],
     [3, 101, 103, 7, 104, 5, 8, 99],
     [6, 100, 3, 5, 8, 99, 6, 100],
     [7, 5, 9, 26, 0, 27, 85, 5],
     [10, 26, 0, 27, 85, 5, 11, 26],
     [0, 27, 85, 5, 12, 26, 0, 27],
     [85, 5, 13, 26, 0, 27, 85, 5],
     [14, 26, 0, 27, 85, 5, 15, 26],
     [0, 27, 85, 5, 16, 26, 0, 27],
     [85, 5, 17, 26, 0, 27, 85, 5],
     [18, 26, 0, 27, 85, 5, 19, 26],
     [0, 27, 85, 5, 20, 26, 0, 27],
     [85, 5, 21, 26, 0, 27, 85, 5],
     [22, 26, 0, 27, 85, 5, 23, 26],
     [0, 27, 85, 5, 24, 26, 0, 27],
     [85, 5, 25, 26, 0, 27, 85, 5],
     [96, 8, 6, 97, 3, 5, 102, 101],
     [103, 7, 104, 6, 8, 99, 6, 100],
     [3, 82, 6, 8, 99, 6, 100, 3],
     [83, 6, 60, 84, 3, 101, 103, 7],
     [6, 61, 84, 3, 101, 103, 7, 6],
     [62, 84, 3, 101, 103, 7, 6, 63],
     [84, 3, 101, 103, 7, 6, 96, 8],
     [6, 97, 3, 82, 7, 60, 84, 3],
     [101, 103, 7, 104, 7, 61, 84, 3],
     [101, 103, 7, 104, 7, 62, 84, 3],
     [101, 103, 7, 104, 7, 63, 84, 3],
     [101, 103, 7, 104]]"

definition smp_actions :: "int list" where
  "smp_actions =
     concat smp_actions_1"

definition smp_trans_targs_1 :: "int list list" where
  "smp_trans_targs_1 =
    [[2, 0, 5, 7585, 7588, 7591, 7597, 7613],
     [7621, 7628, 7634, 7641, 7656, 7667, 7680, 7686],
     [3, 4, 7687, 6, 5, 7, 7165, 7549],
     [7, 8, 9, 6744, 6745, 6949, 6955, 6764],
     [6797, 10, 6743, 11, 12, 13, 14, 15],
     [16, 6742, 17, 18, 6741, 19, 20, 21],
     [32, 107, 38, 326, 343, 358, 379, 408],
     [431, 439, 658, 7687, 22, 21, 23, 22],
     [23, 24, 25, 26, 27, 28, 29, 23],
     [6738, 24, 25, 26, 27, 28, 29, 30],
     [31, 33, 47, 6629, 34, 35, 36, 37],
     [38, 39, 40, 39, 40, 41, 44, 42],
     [43, 18, 44, 45, 46, 48, 49, 50],
     [6620, 51, 52, 53, 54, 53, 54, 54],
     [55, 102, 4981, 61, 5838, 56, 57, 57],
     [58, 59, 60, 61, 62, 63, 64, 65],
     [6619, 66, 67, 6503, 6615, 6617, 6616, 6507],
     [6351, 66, 67, 69, 72, 68, 70, 71],
     [73, 6347, 6349, 6348, 77, 74, 6329, 75],
     [76, 77, 78, 79, 80, 85, 93, 6267],
     [81, 6323, 6325, 6324, 82, 6322, 83, 6321],
     [84, 85, 93, 6267, 86, 87, 6275, 6282],
     [6292, 86, 87, 85, 89, 93, 6267, 88],
     [90, 91, 6274, 90, 91, 85, 93, 6267],
     [92, 94, 95, 98, 5861, 94, 95, 98],
     [5861, 96, 97, 99, 102, 4981, 61, 5838],
     [100, 101, 58, 103, 104, 102, 61, 103],
     [104, 105, 106, 108, 109, 4978, 108, 109],
     [109, 110, 4283, 4288, 116, 4299, 4722, 4970],
     [111, 112, 112, 113, 114, 115, 116, 117],
     [3863, 4247, 117, 118, 119, 120, 3647, 3653],
     [3462, 139, 3495, 3649, 3652, 121, 123, 126],
     [122, 124, 125, 127, 3491, 3493, 3492, 131],
     [128, 3473, 129, 130, 132, 133, 134, 135],
     [3467, 3469, 3468, 136, 3466, 137, 3465, 138],
     [139, 140, 146, 141, 142, 143, 144, 145],
     [147, 150, 3448, 148, 149, 151, 324, 155],
     [152, 153, 154, 156, 159, 163, 173, 157],
     [158, 160, 161, 162, 164, 165, 166, 167],
     [168, 169, 171, 172, 170, 174, 309, 175],
     [178, 176, 177, 179, 295, 180, 183, 181],
     [182, 184, 281, 185, 188, 186, 187, 189],
     [267, 190, 193, 191, 192, 194, 253, 195],
     [198, 196, 197, 199, 239, 200, 203, 201],
     [202, 204, 230, 233, 236, 237, 238, 205],
     [223, 226, 206, 219, 221, 220, 207, 208],
     [215, 217, 216, 209, 210, 211, 213, 212],
     [214, 218, 222, 224, 225, 227, 228, 229],
     [231, 232, 234, 235, 240, 245, 248, 251],
     [252, 241, 244, 242, 243, 246, 247, 249],
     [250, 254, 259, 262, 265, 266, 255, 258],
     [256, 257, 260, 261, 263, 264, 268, 273],
     [276, 279, 280, 269, 272, 270, 271, 274],
     [275, 277, 278, 282, 287, 290, 293, 294],
     [283, 286, 284, 285, 288, 289, 291, 292],
     [296, 301, 304, 307, 308, 297, 300, 298],
     [299, 302, 303, 305, 306, 310, 311, 316],
     [319, 322, 323, 312, 315, 313, 314, 317],
     [318, 320, 321, 325, 327, 328, 327, 328],
     [329, 332, 330, 331, 18, 333, 341, 332],
     [337, 333, 334, 337, 335, 336, 338, 332],
     [339, 340, 342, 344, 345, 344, 345, 346],
     [349, 347, 348, 18, 350, 351, 352, 353],
     [354, 355, 356, 357, 359, 360, 361, 362],
     [363, 364, 365, 366, 367, 368, 369, 370],
     [371, 370, 371, 372, 375, 373, 374, 18],
     [376, 377, 378, 380, 381, 382, 383, 384],
     [385, 386, 387, 388, 389, 390, 391, 392],
     [393, 392, 393, 394, 397, 395, 396, 398],
     [406, 397, 402, 398, 399, 402, 400, 401],
     [403, 397, 404, 405, 407, 409, 2848, 410],
     [411, 412, 413, 414, 415, 416, 415, 416],
     [417, 420, 418, 419, 421, 429, 420, 425],
     [421, 422, 425, 423, 424, 426, 420, 427],
     [428, 430, 432, 433, 434, 435, 436, 437],
     [438, 326, 440, 441, 2847, 440, 441, 441],
     [442, 2152, 2157, 448, 2168, 2591, 2839, 443],
     [444, 444, 445, 446, 447, 448, 449, 1732],
     [2116, 449, 450, 451, 452, 1516, 1522, 1331],
     [471, 1364, 1518, 1521, 453, 455, 458, 454],
     [456, 457, 459, 1360, 1362, 1361, 463, 460],
     [1342, 461, 462, 464, 465, 466, 467, 1336],
     [1338, 1337, 468, 1335, 469, 1334, 470, 471],
     [472, 478, 473, 474, 475, 476, 477, 479],
     [482, 1317, 480, 481, 483, 656, 487, 484],
     [485, 486, 488, 491, 495, 505, 489, 490],
     [492, 493, 494, 496, 497, 498, 499, 500],
     [501, 503, 504, 502, 506, 641, 507, 510],
     [508, 509, 511, 627, 512, 515, 513, 514],
     [516, 613, 517, 520, 518, 519, 521, 599],
     [522, 525, 523, 524, 526, 585, 527, 530],
     [528, 529, 531, 571, 532, 535, 533, 534],
     [536, 562, 565, 568, 569, 570, 537, 555],
     [558, 538, 551, 553, 552, 539, 540, 547],
     [549, 548, 541, 542, 543, 545, 544, 546],
     [550, 554, 556, 557, 559, 560, 561, 563],
     [564, 566, 567, 572, 577, 580, 583, 584],
     [573, 576, 574, 575, 578, 579, 581, 582],
     [586, 591, 594, 597, 598, 587, 590, 588],
     [589, 592, 593, 595, 596, 600, 605, 608],
     [611, 612, 601, 604, 602, 603, 606, 607],
     [609, 610, 614, 619, 622, 625, 626, 615],
     [618, 616, 617, 620, 621, 623, 624, 628],
     [633, 636, 639, 640, 629, 632, 630, 631],
     [634, 635, 637, 638, 642, 643, 648, 651],
     [654, 655, 644, 647, 645, 646, 649, 650],
     [652, 653, 657, 659, 660, 1315, 659, 660],
     [661, 664, 662, 663, 665, 666, 664, 669],
     [667, 668, 670, 673, 671, 672, 674, 675],
     [678, 676, 677, 679, 682, 680, 681, 683],
     [684, 687, 1159, 1161, 1160, 691, 1163, 685],
     [686, 688, 1141, 689, 690, 691, 692, 1137],
     [696, 1139, 1140, 700, 712, 692, 693, 696],
     [700, 712, 694, 695, 697, 664, 698, 699],
     [701, 704, 1131, 1133, 1132, 702, 703, 705],
     [1130, 706, 1129, 707, 708, 726, 696, 712],
     [708, 709, 710, 711, 713, 716, 891, 907],
     [929, 714, 715, 717, 889, 716, 696, 712],
     [721, 717, 718, 721, 719, 720, 722, 725],
     [728, 738, 723, 724, 708, 726, 725, 696],
     [712, 727, 729, 730, 731, 732, 733, 728],
     [734, 736, 737, 735, 739, 874, 740, 743],
     [741, 742, 744, 860, 745, 748, 746, 747],
     [749, 846, 750, 753, 751, 752, 754, 832],
     [755, 758, 756, 757, 759, 818, 760, 763],
     [761, 762, 764, 804, 765, 768, 766, 767],
     [769, 795, 798, 801, 802, 803, 770, 788],
     [791, 771, 784, 786, 785, 772, 773, 780],
     [782, 781, 774, 775, 776, 778, 777, 779],
     [783, 787, 789, 790, 792, 793, 794, 796],
     [797, 799, 800, 805, 810, 813, 816, 817],
     [806, 809, 807, 808, 811, 812, 814, 815],
     [819, 824, 827, 830, 831, 820, 823, 821],
     [822, 825, 826, 828, 829, 833, 838, 841],
     [844, 845, 834, 837, 835, 836, 839, 840],
     [842, 843, 847, 852, 855, 858, 859, 848],
     [851, 849, 850, 853, 854, 856, 857, 861],
     [866, 869, 872, 873, 862, 865, 863, 864],
     [867, 868, 870, 871, 875, 876, 881, 884],
     [887, 888, 877, 880, 878, 879, 882, 883],
     [885, 886, 890, 892, 893, 894, 895, 896],
     [905, 696, 712, 900, 896, 897, 900, 898],
     [899, 901, 904, 902, 903, 708, 726, 696],
     [906, 908, 909, 910, 911, 912, 913, 914],
     [917, 915, 916, 918, 921, 922, 919, 920],
     [708, 726, 921, 696, 712, 923, 924, 925],
     [926, 927, 928, 921, 930, 1103, 931, 932],
     [933, 934, 935, 936, 937, 938, 941, 939],
     [940, 942, 945, 1080, 1083, 1086, 1087, 1102],
     [943, 944, 946, 964, 967, 947, 960, 962]]"

definition smp_trans_targs_2 :: "int list list" where
  "smp_trans_targs_2 =
    [[961, 948, 949, 956, 958, 957, 950, 951],
     [952, 954, 953, 708, 726, 696, 712, 955],
     [959, 963, 965, 966, 968, 1066, 969, 972],
     [970, 971, 973, 1052, 974, 977, 975, 976],
     [978, 1038, 979, 982, 980, 981, 983, 1024],
     [984, 987, 985, 986, 988, 1010, 989, 992],
     [990, 991, 993, 1001, 1004, 1007, 1008, 1009],
     [994, 997, 995, 996, 998, 999, 1000, 1002],
     [1003, 1005, 1006, 1011, 1016, 1019, 1022, 1023],
     [1012, 1015, 1013, 1014, 1017, 1018, 1020, 1021],
     [1025, 1030, 1033, 1036, 1037, 1026, 1029, 1027],
     [1028, 1031, 1032, 1034, 1035, 1039, 1044, 1047],
     [1050, 1051, 1040, 1043, 1041, 1042, 1045, 1046],
     [1048, 1049, 1053, 1058, 1061, 1064, 1065, 1054],
     [1057, 1055, 1056, 1059, 1060, 1062, 1063, 1067],
     [1072, 1075, 1078, 1079, 1068, 1071, 1069, 1070],
     [1073, 1074, 1076, 1077, 1081, 1082, 1084, 1085],
     [1088, 1089, 1094, 1097, 1100, 1101, 1090, 1093],
     [1091, 1092, 1095, 1096, 1098, 1099, 1104, 1105],
     [1106, 1107, 1127, 696, 712, 1111, 1107, 1108],
     [1111, 1109, 1110, 1112, 1115, 1121, 1123, 1122],
     [1113, 1114, 1116, 1120, 1117, 1119, 1118, 1124],
     [1125, 1126, 1128, 1132, 1134, 1135, 1136, 1138],
     [1142, 1155, 1157, 1156, 1143, 1144, 1151, 1153],
     [1152, 1145, 1146, 1147, 1149, 1148, 1150, 1154],
     [1158, 1160, 687, 1162, 1164, 1300, 1165, 1168],
     [1166, 1167, 1169, 1286, 1170, 1173, 1171, 1172],
     [1174, 1272, 1175, 1178, 1176, 1177, 1179, 1258],
     [1180, 1183, 1181, 1182, 1184, 1244, 1185, 1188],
     [1186, 1187, 1189, 1230, 1190, 1193, 1191, 1192],
     [1194, 1221, 1224, 1227, 1228, 1229, 1195, 1214],
     [1217, 1196, 1210, 1212, 1211, 1197, 1198, 1206],
     [1208, 1207, 1199, 1200, 1202, 1204, 1203, 1201],
     [1205, 1209, 1213, 1215, 1216, 1218, 1219, 1220],
     [1222, 1223, 1225, 1226, 1231, 1236, 1239, 1242],
     [1243, 1232, 1235, 1233, 1234, 1237, 1238, 1240],
     [1241, 1245, 1250, 1253, 1256, 1257, 1246, 1249],
     [1247, 1248, 1251, 1252, 1254, 1255, 1259, 1264],
     [1267, 1270, 1271, 1260, 1263, 1261, 1262, 1265],
     [1266, 1268, 1269, 1273, 1278, 1281, 1284, 1285],
     [1274, 1277, 1275, 1276, 1279, 1280, 1282, 1283],
     [1287, 1292, 1295, 1298, 1299, 1288, 1291, 1289],
     [1290, 1293, 1294, 1296, 1297, 1301, 1302, 1307],
     [1310, 1313, 1314, 1303, 1306, 1304, 1305, 1308],
     [1309, 1311, 1312, 1316, 1318, 1319, 1320, 1329],
     [1324, 1321, 1322, 1323, 1325, 1328, 1326, 1327],
     [492, 475, 1328, 478, 1330, 1332, 1333, 1339],
     [1340, 1341, 1343, 1356, 1358, 1357, 1344, 1345],
     [1352, 1354, 1353, 1346, 1347, 1348, 1350, 1349],
     [1351, 1355, 1359, 1363, 1365, 1501, 1366, 1369],
     [1367, 1368, 1370, 1487, 1371, 1374, 1372, 1373],
     [1375, 1473, 1376, 1379, 1377, 1378, 1380, 1459],
     [1381, 1384, 1382, 1383, 1385, 1445, 1386, 1389],
     [1387, 1388, 1390, 1431, 1391, 1394, 1392, 1393],
     [1395, 1422, 1425, 1428, 1429, 1430, 1396, 1415],
     [1418, 1397, 1411, 1413, 1412, 1398, 1399, 1407],
     [1409, 1408, 1400, 1401, 1403, 1405, 1404, 1402],
     [1406, 1410, 1414, 1416, 1417, 1419, 1420, 1421],
     [1423, 1424, 1426, 1427, 1432, 1437, 1440, 1443],
     [1444, 1433, 1436, 1434, 1435, 1438, 1439, 1441],
     [1442, 1446, 1451, 1454, 1457, 1458, 1447, 1450],
     [1448, 1449, 1452, 1453, 1455, 1456, 1460, 1465],
     [1468, 1471, 1472, 1461, 1464, 1462, 1463, 1466],
     [1467, 1469, 1470, 1474, 1479, 1482, 1485, 1486],
     [1475, 1478, 1476, 1477, 1480, 1481, 1483, 1484],
     [1488, 1493, 1496, 1499, 1500, 1489, 1492, 1490],
     [1491, 1494, 1495, 1497, 1498, 1502, 1503, 1508],
     [1511, 1514, 1515, 1504, 1507, 1505, 1506, 1509],
     [1510, 1512, 1513, 1517, 1519, 1520, 1523, 1524],
     [1525, 1726, 1574, 1728, 1731, 1526, 1528, 1531],
     [1527, 1529, 1530, 1532, 1570, 1572, 1571, 1536],
     [1533, 1552, 1534, 1535, 1537, 1538, 1539, 1540],
     [1546, 1548, 1547, 1541, 1545, 1542, 1544, 1543],
     [1549, 1550, 1551, 1553, 1566, 1568, 1567, 1554],
     [1555, 1562, 1564, 1563, 1556, 1557, 1558, 1560],
     [1559, 1561, 1565, 1569, 1573, 1575, 1711, 1576],
     [1579, 1577, 1578, 1580, 1697, 1581, 1584, 1582],
     [1583, 1585, 1683, 1586, 1589, 1587, 1588, 1590],
     [1669, 1591, 1594, 1592, 1593, 1595, 1655, 1596],
     [1599, 1597, 1598, 1600, 1641, 1601, 1604, 1602],
     [1603, 1605, 1632, 1635, 1638, 1639, 1640, 1606],
     [1625, 1628, 1607, 1621, 1623, 1622, 1608, 1609],
     [1617, 1619, 1618, 1610, 1611, 1613, 1615, 1614],
     [1612, 1616, 1620, 1624, 1626, 1627, 1629, 1630],
     [1631, 1633, 1634, 1636, 1637, 1642, 1647, 1650],
     [1653, 1654, 1643, 1646, 1644, 1645, 1648, 1649],
     [1651, 1652, 1656, 1661, 1664, 1667, 1668, 1657],
     [1660, 1658, 1659, 1662, 1663, 1665, 1666, 1670],
     [1675, 1678, 1681, 1682, 1671, 1674, 1672, 1673],
     [1676, 1677, 1679, 1680, 1684, 1689, 1692, 1695],
     [1696, 1685, 1688, 1686, 1687, 1690, 1691, 1693],
     [1694, 1698, 1703, 1706, 1709, 1710, 1699, 1702],
     [1700, 1701, 1704, 1705, 1707, 1708, 1712, 1713],
     [1718, 1721, 1724, 1725, 1714, 1717, 1715, 1716],
     [1719, 1720, 1722, 1723, 1727, 1729, 1730, 1733],
     [1734, 1735, 2115, 1736, 1737, 1999, 2111, 2113],
     [2112, 2003, 1847, 1736, 1737, 1739, 1742, 1738],
     [1740, 1741, 1743, 1843, 1845, 1844, 1747, 1744],
     [1825, 1745, 1746, 1747, 1748, 1749, 1750, 1755],
     [471, 1763, 1751, 1819, 1821, 1820, 1752, 1818],
     [1753, 1817, 1754, 1755, 471, 1763, 1756, 1757],
     [1771, 1778, 1788, 1756, 1757, 1755, 1759, 471],
     [1763, 1758, 1760, 1761, 1770, 1760, 1761, 1755],
     [471, 1763, 1762, 1764, 1765, 1767, 1766, 1768],
     [1763, 471, 1769, 1772, 1755, 1773, 471, 1763],
     [1774, 1775, 1776, 1774, 1775, 1777, 1755, 1763],
     [1779, 1780, 1755, 1773, 471, 1763, 1781, 1782],
     [1783, 1784, 1785, 1786, 1784, 1785, 1755, 471],
     [1763, 1786, 1787, 1755, 471, 1763, 1789, 1790],
     [1791, 1792, 1793, 1794, 1795, 1796, 1797, 1798],
     [1799, 1802, 1806, 1811, 1814, 1800, 1798, 1799],
     [1755, 471, 1763, 1800, 1801, 1755, 471, 1763],
     [1803, 1804, 1805, 1755, 471, 1763, 1807, 1809],
     [1808, 1755, 471, 1763, 1810, 1755, 471, 1763],
     [1812, 1813, 1755, 471, 1763, 1815, 1755, 471],
     [1763, 1816, 1755, 471, 1763, 1820, 1822, 1823],
     [1824, 1826, 1839, 1841, 1840, 1827, 1828, 1835],
     [1837, 1836, 1829, 1830, 1831, 1833, 1832, 1750],
     [1755, 471, 1763, 1834, 1838, 1842, 1844, 1743],
     [1846, 1848, 1984, 1849, 1852, 1850, 1851, 1853],
     [1970, 1854, 1857, 1855, 1856, 1858, 1956, 1859],
     [1862, 1860, 1861, 1863, 1942, 1864, 1867, 1865],
     [1866, 1868, 1928, 1869, 1872, 1870, 1871, 1873],
     [1914, 1874, 1877, 1875, 1876, 1878, 1905, 1908],
     [1911, 1912, 1913, 1879, 1898, 1901, 1880, 1894],
     [1896, 1895, 1881, 1882, 1890, 1892, 1891, 1883],
     [1884, 1886, 1888, 1887, 1885, 1750, 1755, 471],
     [1763, 1889, 1893, 1897, 1899, 1900, 1902, 1903],
     [1904, 1906, 1907, 1909, 1910, 1915, 1920, 1923],
     [1926, 1927, 1916, 1919, 1917, 1918, 1921, 1922],
     [1924, 1925, 1929, 1934, 1937, 1940, 1941, 1930],
     [1933, 1931, 1932, 1935, 1936, 1938, 1939, 1943],
     [1948, 1951, 1954, 1955, 1944, 1947, 1945, 1946],
     [1949, 1950, 1952, 1953, 1957, 1962, 1965, 1968],
     [1969, 1958, 1961, 1959, 1960, 1963, 1964, 1966],
     [1967, 1971, 1976, 1979, 1982, 1983, 1972, 1975],
     [1973, 1974, 1977, 1978, 1980, 1981, 1985, 1986],
     [1991, 1994, 1997, 1998, 1987, 1990, 1988, 1989],
     [1992, 1993, 1995, 1996, 2000, 2093, 2001, 2002],
     [2003, 2004, 2005, 2006, 2019, 2035, 2007, 2013],
     [2015, 2014, 2008, 2012, 2009, 2011, 2010, 2014],
     [2016, 2017, 2018, 2020, 2021, 2023, 2050, 2056],
     [2065, 2020, 2021, 2023, 2019, 2031, 2035, 2022],
     [2024, 2026, 2025, 2027, 2028, 2030, 2027, 2028],
     [2029, 2032, 2033, 2049, 2032, 2033, 2019, 2035],
     [2034, 2036, 2037, 2039, 2046, 2038, 2040, 2042],
     [2041, 2043, 2045, 2044, 2047, 2035, 2048, 2051],
     [2019, 2052, 2035, 2053, 2054, 2053, 2054, 2055],
     [2057, 2058, 2019, 2052, 2035, 2059, 2060, 2061],
     [2062, 2063, 2062, 2063, 2019, 2035, 2064, 2066]]"

definition smp_trans_targs_3 :: "int list list" where
  "smp_trans_targs_3 =
    [[2067, 2068, 2069, 2070, 2071, 2072, 2073, 2074],
     [2075, 2076, 2078, 2082, 2087, 2090, 2075, 2076],
     [2019, 2035, 2077, 2079, 2080, 2081, 2019, 2035],
     [2083, 2085, 2084, 2019, 2035, 2086, 2019, 2035],
     [2088, 2089, 2019, 2035, 2091, 2019, 2035, 2092],
     [2019, 2035, 2094, 2107, 2109, 2108, 2095, 2096],
     [2103, 2105, 2104, 2097, 2098, 2099, 2101, 2100],
     [2006, 2019, 2035, 2102, 2106, 2110, 2112, 1999],
     [2114, 1735, 2117, 2118, 2119, 2120, 2149, 2150],
     [2120, 2121, 471, 2122, 2127, 2122, 2121, 2123],
     [2124, 2125, 2124, 2125, 2121, 2126, 2128, 2129],
     [2130, 2131, 2132, 2133, 2134, 2135, 2136, 2137],
     [2138, 2139, 2140, 2141, 2143, 2146, 2141, 2142],
     [2121, 471, 2144, 2145, 2143, 2146, 2147, 2148],
     [2149, 2150, 2151, 2153, 2154, 2152, 448, 2153],
     [2154, 2155, 2156, 2158, 2159, 2160, 2161, 2162],
     [2157, 2163, 2165, 2167, 2164, 2166, 445, 2166],
     [445, 2168, 2169, 492, 475, 2170, 2171, 2372],
     [2381, 2377, 478, 2220, 2374, 2380, 2172, 2174],
     [2177, 2173, 2175, 2176, 2178, 2216, 2218, 2217],
     [2182, 2179, 2198, 2180, 2181, 2183, 2184, 2185],
     [2186, 2192, 2194, 2193, 2187, 2191, 2188, 2190],
     [2189, 2195, 2196, 2197, 2199, 2212, 2214, 2213],
     [2200, 2201, 2208, 2210, 2209, 2202, 2203, 2204],
     [2206, 2205, 2207, 2211, 2215, 2219, 2221, 2357],
     [2222, 2225, 2223, 2224, 2226, 2343, 2227, 2230],
     [2228, 2229, 2231, 2329, 2232, 2235, 2233, 2234],
     [2236, 2315, 2237, 2240, 2238, 2239, 2241, 2301],
     [2242, 2245, 2243, 2244, 2246, 2287, 2247, 2250],
     [2248, 2249, 2251, 2278, 2281, 2284, 2285, 2286],
     [2252, 2271, 2274, 2253, 2267, 2269, 2268, 2254],
     [2255, 2263, 2265, 2264, 2256, 2257, 2259, 2261],
     [2260, 2258, 2262, 2266, 2270, 2272, 2273, 2275],
     [2276, 2277, 2279, 2280, 2282, 2283, 2288, 2293],
     [2296, 2299, 2300, 2289, 2292, 2290, 2291, 2294],
     [2295, 2297, 2298, 2302, 2307, 2310, 2313, 2314],
     [2303, 2306, 2304, 2305, 2308, 2309, 2311, 2312],
     [2316, 2321, 2324, 2327, 2328, 2317, 2320, 2318],
     [2319, 2322, 2323, 2325, 2326, 2330, 2335, 2338],
     [2341, 2342, 2331, 2334, 2332, 2333, 2336, 2337],
     [2339, 2340, 2344, 2349, 2352, 2355, 2356, 2345],
     [2348, 2346, 2347, 2350, 2351, 2353, 2354, 2358],
     [2359, 2364, 2367, 2370, 2371, 2360, 2363, 2361],
     [2362, 2365, 2366, 2368, 2369, 2373, 2375, 2376],
     [2378, 2379, 2382, 2383, 2384, 2585, 2433, 2587],
     [2590, 2385, 2387, 2390, 2386, 2388, 2389, 2391],
     [2429, 2431, 2430, 2395, 2392, 2411, 2393, 2394],
     [2396, 2397, 2398, 2399, 2405, 2407, 2406, 2400],
     [2404, 2401, 2403, 2402, 2408, 2409, 2410, 2412],
     [2425, 2427, 2426, 2413, 2414, 2421, 2423, 2422],
     [2415, 2416, 2417, 2419, 2418, 2420, 2424, 2428],
     [2432, 2434, 2570, 2435, 2438, 2436, 2437, 2439],
     [2556, 2440, 2443, 2441, 2442, 2444, 2542, 2445],
     [2448, 2446, 2447, 2449, 2528, 2450, 2453, 2451],
     [2452, 2454, 2514, 2455, 2458, 2456, 2457, 2459],
     [2500, 2460, 2463, 2461, 2462, 2464, 2491, 2494],
     [2497, 2498, 2499, 2465, 2484, 2487, 2466, 2480],
     [2482, 2481, 2467, 2468, 2476, 2478, 2477, 2469],
     [2470, 2472, 2474, 2473, 2471, 2475, 2479, 2483],
     [2485, 2486, 2488, 2489, 2490, 2492, 2493, 2495],
     [2496, 2501, 2506, 2509, 2512, 2513, 2502, 2505],
     [2503, 2504, 2507, 2508, 2510, 2511, 2515, 2520],
     [2523, 2526, 2527, 2516, 2519, 2517, 2518, 2521],
     [2522, 2524, 2525, 2529, 2534, 2537, 2540, 2541],
     [2530, 2533, 2531, 2532, 2535, 2536, 2538, 2539],
     [2543, 2548, 2551, 2554, 2555, 2544, 2547, 2545],
     [2546, 2549, 2550, 2552, 2553, 2557, 2562, 2565],
     [2568, 2569, 2558, 2561, 2559, 2560, 2563, 2564],
     [2566, 2567, 2571, 2572, 2577, 2580, 2583, 2584],
     [2573, 2576, 2574, 2575, 2578, 2579, 2581, 2582],
     [2586, 2588, 2589, 2592, 2593, 2594, 2838, 2595],
     [2596, 2796, 2834, 2836, 2835, 2800, 2644, 2595],
     [2596, 2598, 2601, 2597, 2599, 2600, 2602, 2640],
     [2642, 2641, 2606, 2603, 2622, 2604, 2605, 2606],
     [492, 475, 2607, 2608, 2609, 478, 2610, 2616],
     [2618, 2617, 2611, 2615, 2612, 2614, 2613, 492],
     [475, 478, 2617, 2619, 2620, 2621, 2623, 2636],
     [2638, 2637, 2624, 2625, 2632, 2634, 2633, 2626],
     [2627, 2628, 2630, 2629, 492, 475, 2609, 478],
     [2631, 2635, 2639, 2641, 2602, 2643, 2645, 2781],
     [2646, 2649, 2647, 2648, 2650, 2767, 2651, 2654],
     [2652, 2653, 2655, 2753, 2656, 2659, 2657, 2658],
     [2660, 2739, 2661, 2664, 2662, 2663, 2665, 2725],
     [2666, 2669, 2667, 2668, 2670, 2711, 2671, 2674],
     [2672, 2673, 2675, 2702, 2705, 2708, 2709, 2710],
     [2676, 2695, 2698, 2677, 2691, 2693, 2692, 2678],
     [2679, 2687, 2689, 2688, 2680, 2681, 2683, 2685],
     [2684, 2682, 492, 475, 2609, 478, 2686, 2690],
     [2694, 2696, 2697, 2699, 2700, 2701, 2703, 2704],
     [2706, 2707, 2712, 2717, 2720, 2723, 2724, 2713],
     [2716, 2714, 2715, 2718, 2719, 2721, 2722, 2726],
     [2731, 2734, 2737, 2738, 2727, 2730, 2728, 2729],
     [2732, 2733, 2735, 2736, 2740, 2745, 2748, 2751],
     [2752, 2741, 2744, 2742, 2743, 2746, 2747, 2749],
     [2750, 2754, 2759, 2762, 2765, 2766, 2755, 2758],
     [2756, 2757, 2760, 2761, 2763, 2764, 2768, 2773],
     [2776, 2779, 2780, 2769, 2772, 2770, 2771, 2774],
     [2775, 2777, 2778, 2782, 2783, 2788, 2791, 2794],
     [2795, 2784, 2787, 2785, 2786, 2789, 2790, 2792],
     [2793, 2797, 2816, 2798, 2799, 2800, 2801, 2802],
     [2803, 2804, 2810, 2812, 2811, 2805, 2809, 2806],
     [2808, 2807, 2811, 2813, 2814, 2815, 2817, 2830],
     [2832, 2831, 2818, 2819, 2826, 2828, 2827, 2820],
     [2821, 2822, 2824, 2823, 2803, 2825, 2829, 2833],
     [2835, 2796, 2837, 2594, 2840, 2841, 2842, 2843],
     [2844, 2845, 492, 475, 2843, 478, 2844, 2845],
     [2846, 2849, 2850, 2851, 2852, 2853, 2852, 2853],
     [2853, 2854, 2901, 2906, 2860, 2855, 2856, 2856],
     [2857, 2858, 2859, 2860, 2861, 2862, 2863, 2864],
     [3447, 2865, 2866, 3331, 3443, 3445, 3444, 3335],
     [3179, 2865, 2866, 2868, 2871, 2867, 2869, 2870],
     [2872, 3175, 3177, 3176, 2876, 2873, 3157, 2874],
     [2875, 2876, 2877, 2878, 2879, 2884, 2892, 3095],
     [2880, 3151, 3153, 3152, 2881, 3150, 2882, 3149],
     [2883, 2884, 2892, 3095, 2885, 2886, 3103, 3110],
     [3120, 2885, 2886, 2884, 2888, 2892, 3095, 2887],
     [2889, 2890, 3102, 2889, 2890, 2884, 2892, 3095],
     [2891, 2893, 2931, 2897, 2917, 2893, 2894, 2897],
     [2895, 2896, 2898, 2901, 2906, 2860, 2899, 2900],
     [2857, 2902, 2903, 2901, 2860, 2902, 2903, 2904],
     [2905, 2907, 2908, 2909, 2910, 2911, 2906, 2912],
     [2914, 2916, 2913, 2915, 2857, 2915, 2857, 2918],
     [2921, 2919, 2920, 2922, 3093, 2926, 2922, 2923],
     [2924, 2925, 2927, 2930, 2933, 2942, 2928, 2929],
     [2932, 2934, 2935, 2936, 2937, 2938, 2939, 2892],
     [2941, 2940, 2943, 3078, 2944, 2947, 2945, 2946],
     [2948, 3064, 2949, 2952, 2950, 2951, 2953, 3050],
     [2954, 2957, 2955, 2956, 2958, 3036, 2959, 2962],
     [2960, 2961, 2963, 3022, 2964, 2967, 2965, 2966],
     [2968, 3008, 2969, 2972, 2970, 2971, 2973, 2999],
     [3002, 3005, 3006, 3007, 2974, 2992, 2995, 2975],
     [2988, 2990, 2989, 2976, 2977, 2984, 2986, 2985],
     [2978, 2979, 2980, 2982, 2981, 2983, 2987, 2991],
     [2993, 2994, 2996, 2997, 2998, 3000, 3001, 3003],
     [3004, 3009, 3014, 3017, 3020, 3021, 3010, 3013],
     [3011, 3012, 3015, 3016, 3018, 3019, 3023, 3028],
     [3031, 3034, 3035, 3024, 3027, 3025, 3026, 3029],
     [3030, 3032, 3033, 3037, 3042, 3045, 3048, 3049],
     [3038, 3041, 3039, 3040, 3043, 3044, 3046, 3047],
     [3051, 3056, 3059, 3062, 3063, 3052, 3055, 3053],
     [3054, 3057, 3058, 3060, 3061, 3065, 3070, 3073],
     [3076, 3077, 3066, 3069, 3067, 3068, 3071, 3072],
     [3074, 3075, 3079, 3080, 3085, 3088, 3091, 3092],
     [3081, 3084, 3082, 3083, 3086, 3087, 3089, 3090],
     [3094, 3096, 3097, 3099, 3098, 3100, 3095, 2892],
     [3101, 3104, 2884, 3105, 2892, 3095, 3106, 3107],
     [3108, 3106, 3107, 3109, 2884, 2892, 3095, 3111],
     [3112, 2884, 3105, 2892, 3095, 3113, 3114, 3115],
     [3116, 3117, 3118, 3116, 3117, 2884, 2892, 3095],
     [3118, 3119, 2884, 2892, 3095, 3121, 3122, 3123]]"

definition smp_trans_targs_4 :: "int list list" where
  "smp_trans_targs_4 =
    [[3124, 3125, 3126, 3127, 3128, 3129, 3130, 3131],
     [3134, 3138, 3143, 3146, 3132, 3130, 3131, 2884],
     [2892, 3095, 3132, 3133, 2884, 2892, 3095, 3135],
     [3136, 3137, 2884, 2892, 3095, 3139, 3141, 3140],
     [2884, 2892, 3095, 3142, 2884, 2892, 3095, 3144],
     [3145, 2884, 2892, 3095, 3147, 2884, 2892, 3095],
     [3148, 2884, 2892, 3095, 3152, 3154, 3155, 3156],
     [3158, 3171, 3173, 3172, 3159, 3160, 3167, 3169],
     [3168, 3161, 3162, 3163, 3165, 3164, 2879, 2884],
     [2892, 3095, 3166, 3170, 3174, 3176, 2872, 3178],
     [3180, 3316, 3181, 3184, 3182, 3183, 3185, 3302],
     [3186, 3189, 3187, 3188, 3190, 3288, 3191, 3194],
     [3192, 3193, 3195, 3274, 3196, 3199, 3197, 3198],
     [3200, 3260, 3201, 3204, 3202, 3203, 3205, 3246],
     [3206, 3209, 3207, 3208, 3210, 3237, 3240, 3243],
     [3244, 3245, 3211, 3230, 3233, 3212, 3226, 3228],
     [3227, 3213, 3214, 3222, 3224, 3223, 3215, 3216],
     [3218, 3220, 3219, 3217, 2879, 2884, 2892, 3095],
     [3221, 3225, 3229, 3231, 3232, 3234, 3235, 3236],
     [3238, 3239, 3241, 3242, 3247, 3252, 3255, 3258],
     [3259, 3248, 3251, 3249, 3250, 3253, 3254, 3256],
     [3257, 3261, 3266, 3269, 3272, 3273, 3262, 3265],
     [3263, 3264, 3267, 3268, 3270, 3271, 3275, 3280],
     [3283, 3286, 3287, 3276, 3279, 3277, 3278, 3281],
     [3282, 3284, 3285, 3289, 3294, 3297, 3300, 3301],
     [3290, 3293, 3291, 3292, 3295, 3296, 3298, 3299],
     [3303, 3308, 3311, 3314, 3315, 3304, 3307, 3305],
     [3306, 3309, 3310, 3312, 3313, 3317, 3318, 3323],
     [3326, 3329, 3330, 3319, 3322, 3320, 3321, 3324],
     [3325, 3327, 3328, 3332, 3425, 3333, 3334, 3335],
     [3336, 3337, 3338, 3351, 3367, 3339, 3345, 3347],
     [3346, 3340, 3344, 3341, 3343, 3342, 3346, 3348],
     [3349, 3350, 3352, 3353, 3355, 3382, 3388, 3397],
     [3352, 3353, 3355, 3351, 3363, 3367, 3354, 3356],
     [3358, 3357, 3359, 3360, 3362, 3359, 3360, 3361],
     [3364, 3365, 3381, 3364, 3365, 3351, 3367, 3366],
     [3368, 3369, 3371, 3378, 3370, 3372, 3374, 3373],
     [3375, 3377, 3376, 3379, 3367, 3380, 3383, 3351],
     [3384, 3367, 3385, 3386, 3385, 3386, 3387, 3389],
     [3390, 3351, 3384, 3367, 3391, 3392, 3393, 3394],
     [3395, 3394, 3395, 3351, 3367, 3396, 3398, 3399],
     [3400, 3401, 3402, 3403, 3404, 3405, 3406, 3407],
     [3408, 3410, 3414, 3419, 3422, 3407, 3408, 3351],
     [3367, 3409, 3411, 3412, 3413, 3351, 3367, 3415],
     [3417, 3416, 3351, 3367, 3418, 3351, 3367, 3420],
     [3421, 3351, 3367, 3423, 3351, 3367, 3424, 3351],
     [3367, 3426, 3439, 3441, 3440, 3427, 3428, 3435],
     [3437, 3436, 3429, 3430, 3431, 3433, 3432, 3338],
     [3351, 3367, 3434, 3438, 3442, 3444, 3331, 3446],
     [2864, 3449, 3450, 3451, 3460, 3455, 3452, 3453],
     [3454, 3456, 3459, 3457, 3458, 160, 143, 3459],
     [146, 3461, 3463, 3464, 3470, 3471, 3472, 3474],
     [3487, 3489, 3488, 3475, 3476, 3483, 3485, 3484],
     [3477, 3478, 3479, 3481, 3480, 3482, 3486, 3490],
     [3494, 3496, 3632, 3497, 3500, 3498, 3499, 3501],
     [3618, 3502, 3505, 3503, 3504, 3506, 3604, 3507],
     [3510, 3508, 3509, 3511, 3590, 3512, 3515, 3513],
     [3514, 3516, 3576, 3517, 3520, 3518, 3519, 3521],
     [3562, 3522, 3525, 3523, 3524, 3526, 3553, 3556],
     [3559, 3560, 3561, 3527, 3546, 3549, 3528, 3542],
     [3544, 3543, 3529, 3530, 3538, 3540, 3539, 3531],
     [3532, 3534, 3536, 3535, 3533, 3537, 3541, 3545],
     [3547, 3548, 3550, 3551, 3552, 3554, 3555, 3557],
     [3558, 3563, 3568, 3571, 3574, 3575, 3564, 3567],
     [3565, 3566, 3569, 3570, 3572, 3573, 3577, 3582],
     [3585, 3588, 3589, 3578, 3581, 3579, 3580, 3583],
     [3584, 3586, 3587, 3591, 3596, 3599, 3602, 3603],
     [3592, 3595, 3593, 3594, 3597, 3598, 3600, 3601],
     [3605, 3610, 3613, 3616, 3617, 3606, 3609, 3607],
     [3608, 3611, 3612, 3614, 3615, 3619, 3624, 3627],
     [3630, 3631, 3620, 3623, 3621, 3622, 3625, 3626],
     [3628, 3629, 3633, 3634, 3639, 3642, 3645, 3646],
     [3635, 3638, 3636, 3637, 3640, 3641, 3643, 3644],
     [3648, 3650, 3651, 3654, 3655, 3656, 3857, 3705],
     [3859, 3862, 3657, 3659, 3662, 3658, 3660, 3661],
     [3663, 3701, 3703, 3702, 3667, 3664, 3683, 3665],
     [3666, 3668, 3669, 3670, 3671, 3677, 3679, 3678],
     [3672, 3676, 3673, 3675, 3674, 3680, 3681, 3682],
     [3684, 3697, 3699, 3698, 3685, 3686, 3693, 3695],
     [3694, 3687, 3688, 3689, 3691, 3690, 3692, 3696],
     [3700, 3704, 3706, 3842, 3707, 3710, 3708, 3709],
     [3711, 3828, 3712, 3715, 3713, 3714, 3716, 3814],
     [3717, 3720, 3718, 3719, 3721, 3800, 3722, 3725],
     [3723, 3724, 3726, 3786, 3727, 3730, 3728, 3729],
     [3731, 3772, 3732, 3735, 3733, 3734, 3736, 3763],
     [3766, 3769, 3770, 3771, 3737, 3756, 3759, 3738],
     [3752, 3754, 3753, 3739, 3740, 3748, 3750, 3749],
     [3741, 3742, 3744, 3746, 3745, 3743, 3747, 3751],
     [3755, 3757, 3758, 3760, 3761, 3762, 3764, 3765],
     [3767, 3768, 3773, 3778, 3781, 3784, 3785, 3774],
     [3777, 3775, 3776, 3779, 3780, 3782, 3783, 3787],
     [3792, 3795, 3798, 3799, 3788, 3791, 3789, 3790],
     [3793, 3794, 3796, 3797, 3801, 3806, 3809, 3812],
     [3813, 3802, 3805, 3803, 3804, 3807, 3808, 3810],
     [3811, 3815, 3820, 3823, 3826, 3827, 3816, 3819],
     [3817, 3818, 3821, 3822, 3824, 3825, 3829, 3834],
     [3837, 3840, 3841, 3830, 3833, 3831, 3832, 3835],
     [3836, 3838, 3839, 3843, 3844, 3849, 3852, 3855],
     [3856, 3845, 3848, 3846, 3847, 3850, 3851, 3853],
     [3854, 3858, 3860, 3861, 3864, 3865, 3866, 4246],
     [3867, 3868, 4130, 4242, 4244, 4243, 4134, 3978],
     [3867, 3868, 3870, 3873, 3869, 3871, 3872, 3874],
     [3974, 3976, 3975, 3878, 3875, 3956, 3876, 3877],
     [3878, 3879, 3880, 3881, 3886, 139, 3894, 3882],
     [3950, 3952, 3951, 3883, 3949, 3884, 3948, 3885],
     [3886, 139, 3894, 3887, 3888, 3902, 3909, 3919],
     [3887, 3888, 3886, 3890, 139, 3894, 3889, 3891],
     [3892, 3901, 3891, 3892, 3886, 139, 3894, 3893],
     [3895, 3896, 3898, 3897, 3899, 3894, 139, 3900],
     [3903, 3886, 3904, 139, 3894, 3905, 3906, 3907],
     [3905, 3906, 3908, 3886, 3894, 3910, 3911, 3886],
     [3904, 139, 3894, 3912, 3913, 3914, 3915, 3916],
     [3917, 3915, 3916, 3886, 139, 3894, 3917, 3918],
     [3886, 139, 3894, 3920, 3921, 3922, 3923, 3924],
     [3925, 3926, 3927, 3928, 3929, 3930, 3933, 3937],
     [3942, 3945, 3931, 3929, 3930, 3886, 139, 3894],
     [3931, 3932, 3886, 139, 3894, 3934, 3935, 3936],
     [3886, 139, 3894, 3938, 3940, 3939, 3886, 139],
     [3894, 3941, 3886, 139, 3894, 3943, 3944, 3886],
     [139, 3894, 3946, 3886, 139, 3894, 3947, 3886],
     [139, 3894, 3951, 3953, 3954, 3955, 3957, 3970],
     [3972, 3971, 3958, 3959, 3966, 3968, 3967, 3960],
     [3961, 3962, 3964, 3963, 3881, 3886, 139, 3894],
     [3965, 3969, 3973, 3975, 3874, 3977, 3979, 4115],
     [3980, 3983, 3981, 3982, 3984, 4101, 3985, 3988],
     [3986, 3987, 3989, 4087, 3990, 3993, 3991, 3992],
     [3994, 4073, 3995, 3998, 3996, 3997, 3999, 4059],
     [4000, 4003, 4001, 4002, 4004, 4045, 4005, 4008],
     [4006, 4007, 4009, 4036, 4039, 4042, 4043, 4044],
     [4010, 4029, 4032, 4011, 4025, 4027, 4026, 4012],
     [4013, 4021, 4023, 4022, 4014, 4015, 4017, 4019],
     [4018, 4016, 3881, 3886, 139, 3894, 4020, 4024],
     [4028, 4030, 4031, 4033, 4034, 4035, 4037, 4038],
     [4040, 4041, 4046, 4051, 4054, 4057, 4058, 4047],
     [4050, 4048, 4049, 4052, 4053, 4055, 4056, 4060],
     [4065, 4068, 4071, 4072, 4061, 4064, 4062, 4063],
     [4066, 4067, 4069, 4070, 4074, 4079, 4082, 4085],
     [4086, 4075, 4078, 4076, 4077, 4080, 4081, 4083],
     [4084, 4088, 4093, 4096, 4099, 4100, 4089, 4092],
     [4090, 4091, 4094, 4095, 4097, 4098, 4102, 4107],
     [4110, 4113, 4114, 4103, 4106, 4104, 4105, 4108],
     [4109, 4111, 4112, 4116, 4117, 4122, 4125, 4128],
     [4129, 4118, 4121, 4119, 4120, 4123, 4124, 4126],
     [4127, 4131, 4224, 4132, 4133, 4134, 4135, 4136],
     [4137, 4150, 4166, 4138, 4144, 4146, 4145, 4139],
     [4143, 4140, 4142, 4141, 4145, 4147, 4148, 4149],
     [4151, 4152, 4154, 4181, 4187, 4196, 4151, 4152],
     [4154, 4150, 4162, 4166, 4153, 4155, 4157, 4156],
     [4158, 4159, 4161, 4158, 4159, 4160, 4163, 4164],
     [4180, 4163, 4164, 4150, 4166, 4165, 4167, 4168]]"

definition smp_trans_targs_5 :: "int list list" where
  "smp_trans_targs_5 =
    [[4170, 4177, 4169, 4171, 4173, 4172, 4174, 4176],
     [4175, 4178, 4166, 4179, 4182, 4150, 4183, 4166],
     [4184, 4185, 4184, 4185, 4186, 4188, 4189, 4150],
     [4183, 4166, 4190, 4191, 4192, 4193, 4194, 4193],
     [4194, 4150, 4166, 4195, 4197, 4198, 4199, 4200],
     [4201, 4202, 4203, 4204, 4205, 4206, 4207, 4209],
     [4213, 4218, 4221, 4206, 4207, 4150, 4166, 4208],
     [4210, 4211, 4212, 4150, 4166, 4214, 4216, 4215],
     [4150, 4166, 4217, 4150, 4166, 4219, 4220, 4150],
     [4166, 4222, 4150, 4166, 4223, 4150, 4166, 4225],
     [4238, 4240, 4239, 4226, 4227, 4234, 4236, 4235],
     [4228, 4229, 4230, 4232, 4231, 4137, 4150, 4166],
     [4233, 4237, 4241, 4243, 4130, 4245, 3866, 4248],
     [4249, 4250, 4251, 4280, 4281, 4251, 4252, 139],
     [4253, 4258, 4253, 4252, 4254, 4255, 4256, 4255],
     [4256, 4252, 4257, 4259, 4260, 4261, 4262, 4263],
     [4264, 4265, 4266, 4267, 4268, 4269, 4270, 4271],
     [4272, 4274, 4277, 4272, 4273, 4252, 139, 4275],
     [4276, 4274, 4277, 4278, 4279, 4280, 4281, 4282],
     [4284, 4285, 4283, 116, 4284, 4285, 4286, 4287],
     [4289, 4290, 4291, 4292, 4293, 4288, 4294, 4296],
     [4298, 4295, 4297, 113, 4297, 113, 4299, 4300],
     [160, 143, 4301, 4302, 4503, 4512, 4508, 146],
     [4351, 4505, 4511, 4303, 4305, 4308, 4304, 4306],
     [4307, 4309, 4347, 4349, 4348, 4313, 4310, 4329],
     [4311, 4312, 4314, 4315, 4316, 4317, 4323, 4325],
     [4324, 4318, 4322, 4319, 4321, 4320, 4326, 4327],
     [4328, 4330, 4343, 4345, 4344, 4331, 4332, 4339],
     [4341, 4340, 4333, 4334, 4335, 4337, 4336, 4338],
     [4342, 4346, 4350, 4352, 4488, 4353, 4356, 4354],
     [4355, 4357, 4474, 4358, 4361, 4359, 4360, 4362],
     [4460, 4363, 4366, 4364, 4365, 4367, 4446, 4368],
     [4371, 4369, 4370, 4372, 4432, 4373, 4376, 4374],
     [4375, 4377, 4418, 4378, 4381, 4379, 4380, 4382],
     [4409, 4412, 4415, 4416, 4417, 4383, 4402, 4405],
     [4384, 4398, 4400, 4399, 4385, 4386, 4394, 4396],
     [4395, 4387, 4388, 4390, 4392, 4391, 4389, 4393],
     [4397, 4401, 4403, 4404, 4406, 4407, 4408, 4410],
     [4411, 4413, 4414, 4419, 4424, 4427, 4430, 4431],
     [4420, 4423, 4421, 4422, 4425, 4426, 4428, 4429],
     [4433, 4438, 4441, 4444, 4445, 4434, 4437, 4435],
     [4436, 4439, 4440, 4442, 4443, 4447, 4452, 4455],
     [4458, 4459, 4448, 4451, 4449, 4450, 4453, 4454],
     [4456, 4457, 4461, 4466, 4469, 4472, 4473, 4462],
     [4465, 4463, 4464, 4467, 4468, 4470, 4471, 4475],
     [4480, 4483, 4486, 4487, 4476, 4479, 4477, 4478],
     [4481, 4482, 4484, 4485, 4489, 4490, 4495, 4498],
     [4501, 4502, 4491, 4494, 4492, 4493, 4496, 4497],
     [4499, 4500, 4504, 4506, 4507, 4509, 4510, 4513],
     [4514, 4515, 4716, 4564, 4718, 4721, 4516, 4518],
     [4521, 4517, 4519, 4520, 4522, 4560, 4562, 4561],
     [4526, 4523, 4542, 4524, 4525, 4527, 4528, 4529],
     [4530, 4536, 4538, 4537, 4531, 4535, 4532, 4534],
     [4533, 4539, 4540, 4541, 4543, 4556, 4558, 4557],
     [4544, 4545, 4552, 4554, 4553, 4546, 4547, 4548],
     [4550, 4549, 4551, 4555, 4559, 4563, 4565, 4701],
     [4566, 4569, 4567, 4568, 4570, 4687, 4571, 4574],
     [4572, 4573, 4575, 4673, 4576, 4579, 4577, 4578],
     [4580, 4659, 4581, 4584, 4582, 4583, 4585, 4645],
     [4586, 4589, 4587, 4588, 4590, 4631, 4591, 4594],
     [4592, 4593, 4595, 4622, 4625, 4628, 4629, 4630],
     [4596, 4615, 4618, 4597, 4611, 4613, 4612, 4598],
     [4599, 4607, 4609, 4608, 4600, 4601, 4603, 4605],
     [4604, 4602, 4606, 4610, 4614, 4616, 4617, 4619],
     [4620, 4621, 4623, 4624, 4626, 4627, 4632, 4637],
     [4640, 4643, 4644, 4633, 4636, 4634, 4635, 4638],
     [4639, 4641, 4642, 4646, 4651, 4654, 4657, 4658],
     [4647, 4650, 4648, 4649, 4652, 4653, 4655, 4656],
     [4660, 4665, 4668, 4671, 4672, 4661, 4664, 4662],
     [4663, 4666, 4667, 4669, 4670, 4674, 4679, 4682],
     [4685, 4686, 4675, 4678, 4676, 4677, 4680, 4681],
     [4683, 4684, 4688, 4693, 4696, 4699, 4700, 4689],
     [4692, 4690, 4691, 4694, 4695, 4697, 4698, 4702],
     [4703, 4708, 4711, 4714, 4715, 4704, 4707, 4705],
     [4706, 4709, 4710, 4712, 4713, 4717, 4719, 4720],
     [4723, 4724, 4725, 4969, 4726, 4727, 4927, 4965],
     [4967, 4966, 4931, 4775, 4726, 4727, 4729, 4732],
     [4728, 4730, 4731, 4733, 4771, 4773, 4772, 4737],
     [4734, 4753, 4735, 4736, 4737, 160, 143, 4738],
     [4739, 4740, 146, 4741, 4747, 4749, 4748, 4742],
     [4746, 4743, 4745, 4744, 160, 143, 146, 4748],
     [4750, 4751, 4752, 4754, 4767, 4769, 4768, 4755],
     [4756, 4763, 4765, 4764, 4757, 4758, 4759, 4761],
     [4760, 160, 143, 4740, 146, 4762, 4766, 4770],
     [4772, 4733, 4774, 4776, 4912, 4777, 4780, 4778],
     [4779, 4781, 4898, 4782, 4785, 4783, 4784, 4786],
     [4884, 4787, 4790, 4788, 4789, 4791, 4870, 4792],
     [4795, 4793, 4794, 4796, 4856, 4797, 4800, 4798],
     [4799, 4801, 4842, 4802, 4805, 4803, 4804, 4806],
     [4833, 4836, 4839, 4840, 4841, 4807, 4826, 4829],
     [4808, 4822, 4824, 4823, 4809, 4810, 4818, 4820],
     [4819, 4811, 4812, 4814, 4816, 4815, 4813, 160],
     [143, 4740, 146, 4817, 4821, 4825, 4827, 4828],
     [4830, 4831, 4832, 4834, 4835, 4837, 4838, 4843],
     [4848, 4851, 4854, 4855, 4844, 4847, 4845, 4846],
     [4849, 4850, 4852, 4853, 4857, 4862, 4865, 4868],
     [4869, 4858, 4861, 4859, 4860, 4863, 4864, 4866],
     [4867, 4871, 4876, 4879, 4882, 4883, 4872, 4875],
     [4873, 4874, 4877, 4878, 4880, 4881, 4885, 4890],
     [4893, 4896, 4897, 4886, 4889, 4887, 4888, 4891],
     [4892, 4894, 4895, 4899, 4904, 4907, 4910, 4911],
     [4900, 4903, 4901, 4902, 4905, 4906, 4908, 4909],
     [4913, 4914, 4919, 4922, 4925, 4926, 4915, 4918],
     [4916, 4917, 4920, 4921, 4923, 4924, 4928, 4947],
     [4929, 4930, 4931, 4932, 4933, 4934, 4935, 4941],
     [4943, 4942, 4936, 4940, 4937, 4939, 4938, 4942],
     [4944, 4945, 4946, 4948, 4961, 4963, 4962, 4949],
     [4950, 4957, 4959, 4958, 4951, 4952, 4953, 4955],
     [4954, 4934, 4956, 4960, 4964, 4966, 4927, 4968],
     [4725, 4971, 4972, 4973, 4974, 4975, 4976, 160],
     [143, 4974, 146, 4975, 4976, 4977, 4979, 4980],
     [4982, 4983, 4984, 4985, 4986, 4981, 4987, 4989],
     [4991, 4988, 4990, 58, 4990, 58, 4992, 4993],
     [4994, 4995, 4996, 4997, 4998, 5000, 5837, 4999],
     [5001, 5002, 5005, 5001, 5002, 5005, 5003, 5004],
     [5006, 5007, 5008, 5009, 5836, 5010, 5011, 5720],
     [5832, 5834, 5833, 5724, 5568, 5010, 5011, 5013],
     [5016, 5012, 5014, 5015, 5017, 5564, 5566, 5565],
     [5021, 5018, 5546, 5019, 5020, 5021, 5022, 5023],
     [5024, 5029, 5037, 5484, 5025, 5540, 5542, 5541],
     [5026, 5539, 5027, 5538, 5028, 5029, 5037, 5484],
     [5030, 5031, 5492, 5499, 5509, 5030, 5031, 5029],
     [5033, 5037, 5484, 5032, 5034, 5035, 5491, 5034],
     [5035, 5029, 5037, 5484, 5036, 5038, 5067, 5042],
     [5076, 5038, 5039, 5042, 5076, 5040, 5041, 5043],
     [5046, 4992, 5005, 5051, 5044, 5045, 5002, 5047],
     [5048, 5046, 5047, 5048, 5049, 5050, 5052, 5053],
     [5054, 5483, 5055, 5056, 5441, 5479, 5481, 5480],
     [5445, 5289, 5055, 5056, 5058, 5061, 5057, 5059],
     [5060, 5062, 5285, 5287, 5286, 5066, 5063, 5267],
     [5064, 5065, 5066, 5038, 5067, 5042, 5069, 5070],
     [5071, 5076, 5068, 5072, 5261, 5263, 5262, 5073],
     [5260, 5074, 5259, 5075, 5038, 5067, 5042, 5076],
     [5077, 5080, 5253, 5078, 5079, 5081, 5251, 5042],
     [5085, 5081, 5082, 5083, 5084, 5086, 5089, 5090],
     [5100, 5087, 5088, 5038, 5067, 5091, 5092, 5093],
     [5094, 5095, 5096, 5098, 5099, 5097, 5101, 5236],
     [5102, 5105, 5103, 5104, 5106, 5222, 5107, 5110],
     [5108, 5109, 5111, 5208, 5112, 5115, 5113, 5114],
     [5116, 5194, 5117, 5120, 5118, 5119, 5121, 5180],
     [5122, 5125, 5123, 5124, 5126, 5166, 5127, 5130],
     [5128, 5129, 5131, 5157, 5160, 5163, 5164, 5165],
     [5132, 5150, 5153, 5133, 5146, 5148, 5147, 5134],
     [5135, 5142, 5144, 5143, 5136, 5137, 5138, 5140],
     [5139, 5141, 5145, 5149, 5151, 5152, 5154, 5155],
     [5156, 5158, 5159, 5161, 5162, 5167, 5172, 5175],
     [5178, 5179, 5168, 5171, 5169, 5170, 5173, 5174],
     [5176, 5177, 5181, 5186, 5189, 5192, 5193, 5182],
     [5185, 5183, 5184, 5187, 5188, 5190, 5191, 5195],
     [5200, 5203, 5206, 5207, 5196, 5199, 5197, 5198]]"

definition smp_trans_targs_6 :: "int list list" where
  "smp_trans_targs_6 =
    [[5201, 5202, 5204, 5205, 5209, 5214, 5217, 5220],
     [5221, 5210, 5213, 5211, 5212, 5215, 5216, 5218],
     [5219, 5223, 5228, 5231, 5234, 5235, 5224, 5227],
     [5225, 5226, 5229, 5230, 5232, 5233, 5237, 5238],
     [5243, 5246, 5249, 5250, 5239, 5242, 5240, 5241],
     [5244, 5245, 5247, 5248, 5252, 5254, 5255, 5256],
     [5257, 5258, 5081, 5251, 5042, 5076, 5085, 5262],
     [5264, 5265, 5266, 5268, 5281, 5283, 5282, 5269],
     [5270, 5277, 5279, 5278, 5271, 5272, 5273, 5275],
     [5274, 5038, 5067, 5042, 5071, 5076, 5276, 5280],
     [5284, 5286, 5062, 5288, 5290, 5426, 5291, 5294],
     [5292, 5293, 5295, 5412, 5296, 5299, 5297, 5298],
     [5300, 5398, 5301, 5304, 5302, 5303, 5305, 5384],
     [5306, 5309, 5307, 5308, 5310, 5370, 5311, 5314],
     [5312, 5313, 5315, 5356, 5316, 5319, 5317, 5318],
     [5320, 5347, 5350, 5353, 5354, 5355, 5321, 5340],
     [5343, 5322, 5336, 5338, 5337, 5323, 5324, 5332],
     [5334, 5333, 5325, 5326, 5328, 5330, 5329, 5327],
     [5038, 5067, 5042, 5071, 5076, 5331, 5335, 5339],
     [5341, 5342, 5344, 5345, 5346, 5348, 5349, 5351],
     [5352, 5357, 5362, 5365, 5368, 5369, 5358, 5361],
     [5359, 5360, 5363, 5364, 5366, 5367, 5371, 5376],
     [5379, 5382, 5383, 5372, 5375, 5373, 5374, 5377],
     [5378, 5380, 5381, 5385, 5390, 5393, 5396, 5397],
     [5386, 5389, 5387, 5388, 5391, 5392, 5394, 5395],
     [5399, 5404, 5407, 5410, 5411, 5400, 5403, 5401],
     [5402, 5405, 5406, 5408, 5409, 5413, 5418, 5421],
     [5424, 5425, 5414, 5417, 5415, 5416, 5419, 5420],
     [5422, 5423, 5427, 5428, 5433, 5436, 5439, 5440],
     [5429, 5432, 5430, 5431, 5434, 5435, 5437, 5438],
     [5442, 5461, 5443, 5444, 5445, 5446, 5447, 5448],
     [5449, 5455, 5457, 5456, 5450, 5454, 5451, 5453],
     [5452, 5456, 5458, 5459, 5460, 5462, 5475, 5477],
     [5476, 5463, 5464, 5471, 5473, 5472, 5465, 5466],
     [5467, 5469, 5468, 5448, 5470, 5474, 5478, 5480],
     [5441, 5482, 5054, 5485, 5486, 5488, 5487, 5489],
     [5484, 5037, 5490, 5493, 5029, 5494, 5037, 5484],
     [5495, 5496, 5497, 5495, 5496, 5498, 5029, 5037],
     [5484, 5500, 5501, 5029, 5494, 5037, 5484, 5502],
     [5503, 5504, 5505, 5506, 5507, 5505, 5506, 5029],
     [5037, 5484, 5507, 5508, 5029, 5037, 5484, 5510],
     [5511, 5512, 5513, 5514, 5515, 5516, 5517, 5518],
     [5519, 5520, 5523, 5527, 5532, 5535, 5521, 5519],
     [5520, 5029, 5037, 5484, 5521, 5522, 5029, 5037],
     [5484, 5524, 5525, 5526, 5029, 5037, 5484, 5528],
     [5530, 5529, 5029, 5037, 5484, 5531, 5029, 5037],
     [5484, 5533, 5534, 5029, 5037, 5484, 5536, 5029],
     [5037, 5484, 5537, 5029, 5037, 5484, 5541, 5543],
     [5544, 5545, 5547, 5560, 5562, 5561, 5548, 5549],
     [5556, 5558, 5557, 5550, 5551, 5552, 5554, 5553],
     [5024, 5029, 5037, 5484, 5555, 5559, 5563, 5565],
     [5017, 5567, 5569, 5705, 5570, 5573, 5571, 5572],
     [5574, 5691, 5575, 5578, 5576, 5577, 5579, 5677],
     [5580, 5583, 5581, 5582, 5584, 5663, 5585, 5588],
     [5586, 5587, 5589, 5649, 5590, 5593, 5591, 5592],
     [5594, 5635, 5595, 5598, 5596, 5597, 5599, 5626],
     [5629, 5632, 5633, 5634, 5600, 5619, 5622, 5601],
     [5615, 5617, 5616, 5602, 5603, 5611, 5613, 5612],
     [5604, 5605, 5607, 5609, 5608, 5606, 5024, 5029],
     [5037, 5484, 5610, 5614, 5618, 5620, 5621, 5623],
     [5624, 5625, 5627, 5628, 5630, 5631, 5636, 5641],
     [5644, 5647, 5648, 5637, 5640, 5638, 5639, 5642],
     [5643, 5645, 5646, 5650, 5655, 5658, 5661, 5662],
     [5651, 5654, 5652, 5653, 5656, 5657, 5659, 5660],
     [5664, 5669, 5672, 5675, 5676, 5665, 5668, 5666],
     [5667, 5670, 5671, 5673, 5674, 5678, 5683, 5686],
     [5689, 5690, 5679, 5682, 5680, 5681, 5684, 5685],
     [5687, 5688, 5692, 5697, 5700, 5703, 5704, 5693],
     [5696, 5694, 5695, 5698, 5699, 5701, 5702, 5706],
     [5707, 5712, 5715, 5718, 5719, 5708, 5711, 5709],
     [5710, 5713, 5714, 5716, 5717, 5721, 5814, 5722],
     [5723, 5724, 5725, 5726, 5727, 5740, 5756, 5728],
     [5734, 5736, 5735, 5729, 5733, 5730, 5732, 5731],
     [5735, 5737, 5738, 5739, 5741, 5742, 5744, 5771],
     [5777, 5786, 5741, 5742, 5744, 5740, 5752, 5756],
     [5743, 5745, 5747, 5746, 5748, 5749, 5751, 5748],
     [5749, 5750, 5753, 5754, 5770, 5753, 5754, 5740],
     [5756, 5755, 5757, 5758, 5760, 5767, 5759, 5761],
     [5763, 5762, 5764, 5766, 5765, 5768, 5756, 5769],
     [5772, 5740, 5773, 5756, 5774, 5775, 5774, 5775],
     [5776, 5778, 5779, 5740, 5773, 5756, 5780, 5781],
     [5782, 5783, 5784, 5783, 5784, 5740, 5756, 5785],
     [5787, 5788, 5789, 5790, 5791, 5792, 5793, 5794],
     [5795, 5796, 5797, 5799, 5803, 5808, 5811, 5796],
     [5797, 5740, 5756, 5798, 5800, 5801, 5802, 5740],
     [5756, 5804, 5806, 5805, 5740, 5756, 5807, 5740],
     [5756, 5809, 5810, 5740, 5756, 5812, 5740, 5756],
     [5813, 5740, 5756, 5815, 5828, 5830, 5829, 5816],
     [5817, 5824, 5826, 5825, 5818, 5819, 5820, 5822],
     [5821, 5727, 5740, 5756, 5823, 5827, 5831, 5833],
     [5720, 5835, 5009, 5839, 5840, 5841, 6266, 5842],
     [5843, 6224, 6262, 6264, 6263, 6228, 6072, 5842],
     [5843, 5845, 5848, 5844, 5846, 5847, 5849, 6068],
     [6070, 6069, 5853, 5850, 6050, 5851, 5852, 5853],
     [94, 95, 98, 5854, 5855, 5856, 5861, 5857],
     [6044, 6046, 6045, 5858, 6043, 5859, 6042, 5860],
     [94, 95, 98, 5861, 5862, 5865, 6036, 5863],
     [5864, 5866, 5867, 98, 5870, 5866, 5867, 5868],
     [5869, 5871, 5874, 5875, 5885, 5872, 5873, 94],
     [95, 5876, 5877, 5878, 5879, 5880, 5881, 5883],
     [5884, 5882, 5886, 6021, 5887, 5890, 5888, 5889],
     [5891, 6007, 5892, 5895, 5893, 5894, 5896, 5993],
     [5897, 5900, 5898, 5899, 5901, 5979, 5902, 5905],
     [5903, 5904, 5906, 5965, 5907, 5910, 5908, 5909],
     [5911, 5951, 5912, 5915, 5913, 5914, 5916, 5942],
     [5945, 5948, 5949, 5950, 5917, 5935, 5938, 5918],
     [5931, 5933, 5932, 5919, 5920, 5927, 5929, 5928],
     [5921, 5922, 5923, 5925, 5924, 5926, 5930, 5934],
     [5936, 5937, 5939, 5940, 5941, 5943, 5944, 5946],
     [5947, 5952, 5957, 5960, 5963, 5964, 5953, 5956],
     [5954, 5955, 5958, 5959, 5961, 5962, 5966, 5971],
     [5974, 5977, 5978, 5967, 5970, 5968, 5969, 5972],
     [5973, 5975, 5976, 5980, 5985, 5988, 5991, 5992],
     [5981, 5984, 5982, 5983, 5986, 5987, 5989, 5990],
     [5994, 5999, 6002, 6005, 6006, 5995, 5998, 5996],
     [5997, 6000, 6001, 6003, 6004, 6008, 6013, 6016],
     [6019, 6020, 6009, 6012, 6010, 6011, 6014, 6015],
     [6017, 6018, 6022, 6023, 6028, 6031, 6034, 6035],
     [6024, 6027, 6025, 6026, 6029, 6030, 6032, 6033],
     [6037, 6038, 6039, 6040, 6041, 5866, 5867, 98],
     [5861, 5870, 6045, 6047, 6048, 6049, 6051, 6064],
     [6066, 6065, 6052, 6053, 6060, 6062, 6061, 6054],
     [6055, 6056, 6058, 6057, 94, 95, 98, 5856],
     [5861, 6059, 6063, 6067, 6069, 5849, 6071, 6073],
     [6209, 6074, 6077, 6075, 6076, 6078, 6195, 6079],
     [6082, 6080, 6081, 6083, 6181, 6084, 6087, 6085],
     [6086, 6088, 6167, 6089, 6092, 6090, 6091, 6093],
     [6153, 6094, 6097, 6095, 6096, 6098, 6139, 6099],
     [6102, 6100, 6101, 6103, 6130, 6133, 6136, 6137],
     [6138, 6104, 6123, 6126, 6105, 6119, 6121, 6120],
     [6106, 6107, 6115, 6117, 6116, 6108, 6109, 6111],
     [6113, 6112, 6110, 94, 95, 98, 5856, 5861],
     [6114, 6118, 6122, 6124, 6125, 6127, 6128, 6129],
     [6131, 6132, 6134, 6135, 6140, 6145, 6148, 6151],
     [6152, 6141, 6144, 6142, 6143, 6146, 6147, 6149],
     [6150, 6154, 6159, 6162, 6165, 6166, 6155, 6158],
     [6156, 6157, 6160, 6161, 6163, 6164, 6168, 6173],
     [6176, 6179, 6180, 6169, 6172, 6170, 6171, 6174],
     [6175, 6177, 6178, 6182, 6187, 6190, 6193, 6194],
     [6183, 6186, 6184, 6185, 6188, 6189, 6191, 6192],
     [6196, 6201, 6204, 6207, 6208, 6197, 6200, 6198],
     [6199, 6202, 6203, 6205, 6206, 6210, 6211, 6216],
     [6219, 6222, 6223, 6212, 6215, 6213, 6214, 6217],
     [6218, 6220, 6221, 6225, 6244, 6226, 6227, 6228],
     [6229, 6230, 6231, 6232, 6238, 6240, 6239, 6233],
     [6237, 6234, 6236, 6235, 6239, 6241, 6242, 6243],
     [6245, 6258, 6260, 6259, 6246, 6247, 6254, 6256],
     [6255, 6248, 6249, 6250, 6252, 6251, 6231, 6253],
     [6257, 6261, 6263, 6224, 6265, 5841, 6268, 6269],
     [6271, 6270, 6272, 6267, 93, 6273, 6276, 85]]"

definition smp_trans_targs_7 :: "int list list" where
  "smp_trans_targs_7 =
    [[6277, 93, 6267, 6278, 6279, 6280, 6278, 6279],
     [6281, 85, 93, 6267, 6283, 6284, 85, 6277],
     [93, 6267, 6285, 6286, 6287, 6288, 6289, 6290],
     [6288, 6289, 85, 93, 6267, 6290, 6291, 85],
     [93, 6267, 6293, 6294, 6295, 6296, 6297, 6298],
     [6299, 6300, 6301, 6302, 6303, 6306, 6310, 6315],
     [6318, 6304, 6302, 6303, 85, 93, 6267, 6304],
     [6305, 85, 93, 6267, 6307, 6308, 6309, 85],
     [93, 6267, 6311, 6313, 6312, 85, 93, 6267],
     [6314, 85, 93, 6267, 6316, 6317, 85, 93],
     [6267, 6319, 85, 93, 6267, 6320, 85, 93],
     [6267, 6324, 6326, 6327, 6328, 6330, 6343, 6345],
     [6344, 6331, 6332, 6339, 6341, 6340, 6333, 6334],
     [6335, 6337, 6336, 80, 85, 93, 6267, 6338],
     [6342, 6346, 6348, 73, 6350, 6352, 6488, 6353],
     [6356, 6354, 6355, 6357, 6474, 6358, 6361, 6359],
     [6360, 6362, 6460, 6363, 6366, 6364, 6365, 6367],
     [6446, 6368, 6371, 6369, 6370, 6372, 6432, 6373],
     [6376, 6374, 6375, 6377, 6418, 6378, 6381, 6379],
     [6380, 6382, 6409, 6412, 6415, 6416, 6417, 6383],
     [6402, 6405, 6384, 6398, 6400, 6399, 6385, 6386],
     [6394, 6396, 6395, 6387, 6388, 6390, 6392, 6391],
     [6389, 80, 85, 93, 6267, 6393, 6397, 6401],
     [6403, 6404, 6406, 6407, 6408, 6410, 6411, 6413],
     [6414, 6419, 6424, 6427, 6430, 6431, 6420, 6423],
     [6421, 6422, 6425, 6426, 6428, 6429, 6433, 6438],
     [6441, 6444, 6445, 6434, 6437, 6435, 6436, 6439],
     [6440, 6442, 6443, 6447, 6452, 6455, 6458, 6459],
     [6448, 6451, 6449, 6450, 6453, 6454, 6456, 6457],
     [6461, 6466, 6469, 6472, 6473, 6462, 6465, 6463],
     [6464, 6467, 6468, 6470, 6471, 6475, 6480, 6483],
     [6486, 6487, 6476, 6479, 6477, 6478, 6481, 6482],
     [6484, 6485, 6489, 6490, 6495, 6498, 6501, 6502],
     [6491, 6494, 6492, 6493, 6496, 6497, 6499, 6500],
     [6504, 6597, 6505, 6506, 6507, 6508, 6509, 6510],
     [6523, 6539, 6511, 6517, 6519, 6518, 6512, 6516],
     [6513, 6515, 6514, 6518, 6520, 6521, 6522, 6524],
     [6525, 6527, 6554, 6560, 6569, 6524, 6525, 6527],
     [6523, 6535, 6539, 6526, 6528, 6530, 6529, 6531],
     [6532, 6534, 6531, 6532, 6533, 6536, 6537, 6553],
     [6536, 6537, 6523, 6539, 6538, 6540, 6541, 6543],
     [6550, 6542, 6544, 6546, 6545, 6547, 6549, 6548],
     [6551, 6539, 6552, 6555, 6523, 6556, 6539, 6557],
     [6558, 6557, 6558, 6559, 6561, 6562, 6523, 6556],
     [6539, 6563, 6564, 6565, 6566, 6567, 6566, 6567],
     [6523, 6539, 6568, 6570, 6571, 6572, 6573, 6574],
     [6575, 6576, 6577, 6578, 6579, 6580, 6582, 6586],
     [6591, 6594, 6579, 6580, 6523, 6539, 6581, 6583],
     [6584, 6585, 6523, 6539, 6587, 6589, 6588, 6523],
     [6539, 6590, 6523, 6539, 6592, 6593, 6523, 6539],
     [6595, 6523, 6539, 6596, 6523, 6539, 6598, 6611],
     [6613, 6612, 6599, 6600, 6607, 6609, 6608, 6601],
     [6602, 6603, 6605, 6604, 6510, 6523, 6539, 6606],
     [6610, 6614, 6616, 6503, 6618, 65, 6621, 6622],
     [6623, 6624, 6625, 6626, 6627, 6628, 343, 6630],
     [6631, 6632, 6633, 6632, 6633, 6634, 6637, 6635],
     [6636, 6638, 6639, 6729, 6638, 6639, 6642, 6643],
     [6646, 6649, 6655, 6663, 6670, 6676, 6683, 6698],
     [6709, 6722, 6728, 6640, 6641, 18, 6642, 6644],
     [6645, 18, 6647, 6648, 18, 6650, 6651, 6652],
     [6653, 6654, 18, 6656, 6657, 6659, 6658, 18],
     [6660, 6661, 6662, 18, 6664, 6665, 6666, 6667],
     [6668, 6669, 18, 6671, 6672, 6673, 6674, 6675],
     [18, 6677, 6678, 6679, 6680, 6681, 6682, 18],
     [6684, 6688, 6685, 6686, 6687, 18, 6689, 6694],
     [6696, 6690, 6691, 6692, 6693, 18, 6695, 18],
     [6697, 18, 6699, 6700, 6703, 6701, 6702, 18],
     [6704, 6705, 6706, 6707, 6708, 18, 6710, 6714],
     [6711, 6712, 6713, 18, 6715, 6716, 6717, 6718],
     [6719, 6720, 6721, 18, 6723, 6724, 6725, 6726],
     [6727, 18, 18, 6730, 6731, 6732, 6733, 6734],
     [6735, 6736, 6737, 6739, 6740, 6740, 30, 6951],
     [6954, 6746, 6748, 6751, 6747, 6749, 6750, 6752],
     [6793, 6795, 6794, 6756, 6753, 6775, 6754, 6755],
     [6757, 6758, 6759, 6760, 6769, 6771, 6770, 6761],
     [6768, 6762, 6767, 6763, 6765, 6766, 6772, 6773],
     [6774, 6776, 6789, 6791, 6790, 6777, 6778, 6785],
     [6787, 6786, 6779, 6780, 6781, 6783, 6782, 6784],
     [6788, 6792, 6796, 6798, 6934, 6799, 6802, 6800],
     [6801, 6803, 6920, 6804, 6807, 6805, 6806, 6808],
     [6906, 6809, 6812, 6810, 6811, 6813, 6892, 6814],
     [6817, 6815, 6816, 6818, 6878, 6819, 6822, 6820],
     [6821, 6823, 6864, 6824, 6827, 6825, 6826, 6828],
     [6855, 6858, 6861, 6862, 6863, 6829, 6848, 6851],
     [6830, 6844, 6846, 6845, 6831, 6832, 6840, 6842],
     [6841, 6833, 6834, 6836, 6838, 6837, 6835, 6839],
     [6843, 6847, 6849, 6850, 6852, 6853, 6854, 6856],
     [6857, 6859, 6860, 6865, 6870, 6873, 6876, 6877],
     [6866, 6869, 6867, 6868, 6871, 6872, 6874, 6875],
     [6879, 6884, 6887, 6890, 6891, 6880, 6883, 6881],
     [6882, 6885, 6886, 6888, 6889, 6893, 6898, 6901],
     [6904, 6905, 6894, 6897, 6895, 6896, 6899, 6900],
     [6902, 6903, 6907, 6912, 6915, 6918, 6919, 6908],
     [6911, 6909, 6910, 6913, 6914, 6916, 6917, 6921],
     [6926, 6929, 6932, 6933, 6922, 6925, 6923, 6924],
     [6927, 6928, 6930, 6931, 6935, 6936, 6941, 6944],
     [6947, 6948, 6937, 6940, 6938, 6939, 6942, 6943],
     [6945, 6946, 6950, 6952, 6953, 6956, 6957, 6958],
     [7159, 7007, 7161, 7164, 6959, 6961, 6964, 6960],
     [6962, 6963, 6965, 7003, 7005, 7004, 6969, 6966],
     [6985, 6967, 6968, 6970, 6971, 6972, 6973, 6979],
     [6981, 6980, 6974, 6978, 6975, 6977, 6976, 6982],
     [6983, 6984, 6986, 6999, 7001, 7000, 6987, 6988],
     [6995, 6997, 6996, 6989, 6990, 6991, 6993, 6992],
     [6994, 6998, 7002, 7006, 7008, 7144, 7009, 7012],
     [7010, 7011, 7013, 7130, 7014, 7017, 7015, 7016],
     [7018, 7116, 7019, 7022, 7020, 7021, 7023, 7102],
     [7024, 7027, 7025, 7026, 7028, 7088, 7029, 7032],
     [7030, 7031, 7033, 7074, 7034, 7037, 7035, 7036],
     [7038, 7065, 7068, 7071, 7072, 7073, 7039, 7058],
     [7061, 7040, 7054, 7056, 7055, 7041, 7042, 7050],
     [7052, 7051, 7043, 7044, 7046, 7048, 7047, 7045],
     [7049, 7053, 7057, 7059, 7060, 7062, 7063, 7064],
     [7066, 7067, 7069, 7070, 7075, 7080, 7083, 7086],
     [7087, 7076, 7079, 7077, 7078, 7081, 7082, 7084],
     [7085, 7089, 7094, 7097, 7100, 7101, 7090, 7093],
     [7091, 7092, 7095, 7096, 7098, 7099, 7103, 7108],
     [7111, 7114, 7115, 7104, 7107, 7105, 7106, 7109],
     [7110, 7112, 7113, 7117, 7122, 7125, 7128, 7129],
     [7118, 7121, 7119, 7120, 7123, 7124, 7126, 7127],
     [7131, 7136, 7139, 7142, 7143, 7132, 7135, 7133],
     [7134, 7137, 7138, 7140, 7141, 7145, 7146, 7151],
     [7154, 7157, 7158, 7147, 7150, 7148, 7149, 7152],
     [7153, 7155, 7156, 7160, 7162, 7163, 7166, 7167],
     [7168, 7548, 7169, 7170, 7432, 7544, 7546, 7545],
     [7436, 7280, 7169, 7170, 7172, 7175, 7171, 7173],
     [7174, 7176, 7276, 7278, 7277, 7180, 7177, 7258],
     [7178, 7179, 7180, 9, 7181, 7182, 7183, 7188],
     [7196, 7184, 7252, 7254, 7253, 7185, 7251, 7186],
     [7250, 7187, 9, 7188, 7196, 7189, 7190, 7204],
     [7211, 7221, 9, 7189, 7190, 7188, 7192, 7196],
     [7191, 7193, 7194, 7203, 9, 7193, 7194, 7188],
     [7196, 7195, 7197, 7198, 7200, 7199, 9, 7201],
     [7196, 7202, 7205, 9, 7188, 7206, 7196, 7207],
     [7208, 7209, 7207, 7208, 7210, 7188, 7196, 7212],
     [7213, 9, 7188, 7206, 7196, 7214, 7215, 7216],
     [7217, 7218, 7219, 9, 7217, 7218, 7188, 7196],
     [7219, 9, 7220, 7188, 7196, 7222, 7223, 7224],
     [7225, 7226, 7227, 7228, 7229, 7230, 7231, 7232],
     [7235, 7239, 7244, 7247, 7233, 9, 7231, 7232],
     [7188, 7196, 7233, 9, 7234, 7188, 7196, 7236],
     [7237, 7238, 9, 7188, 7196, 7240, 7242, 7241],
     [9, 7188, 7196, 7243, 9, 7188, 7196, 7245],
     [7246, 9, 7188, 7196, 7248, 9, 7188, 7196],
     [7249, 9, 7188, 7196, 7253, 7255, 7256, 7257],
     [7259, 7272, 7274, 7273, 7260, 7261, 7268, 7270],
     [7269, 7262, 7263, 7264, 7266, 7265, 9, 7183],
     [7188, 7196, 7267, 7271, 7275, 7277, 7176, 7279],
     [7281, 7417, 7282, 7285, 7283, 7284, 7286, 7403],
     [7287, 7290, 7288, 7289, 7291, 7389, 7292, 7295]]"

definition smp_trans_targs_8 :: "int list list" where
  "smp_trans_targs_8 =
    [[7293, 7294, 7296, 7375, 7297, 7300, 7298, 7299],
     [7301, 7361, 7302, 7305, 7303, 7304, 7306, 7347],
     [7307, 7310, 7308, 7309, 7311, 7338, 7341, 7344],
     [7345, 7346, 7312, 7331, 7334, 7313, 7327, 7329],
     [7328, 7314, 7315, 7323, 7325, 7324, 7316, 7317],
     [7319, 7321, 7320, 7318, 9, 7183, 7188, 7196],
     [7322, 7326, 7330, 7332, 7333, 7335, 7336, 7337],
     [7339, 7340, 7342, 7343, 7348, 7353, 7356, 7359],
     [7360, 7349, 7352, 7350, 7351, 7354, 7355, 7357],
     [7358, 7362, 7367, 7370, 7373, 7374, 7363, 7366],
     [7364, 7365, 7368, 7369, 7371, 7372, 7376, 7381],
     [7384, 7387, 7388, 7377, 7380, 7378, 7379, 7382],
     [7383, 7385, 7386, 7390, 7395, 7398, 7401, 7402],
     [7391, 7394, 7392, 7393, 7396, 7397, 7399, 7400],
     [7404, 7409, 7412, 7415, 7416, 7405, 7408, 7406],
     [7407, 7410, 7411, 7413, 7414, 7418, 7419, 7424],
     [7427, 7430, 7431, 7420, 7423, 7421, 7422, 7425],
     [7426, 7428, 7429, 7433, 7526, 7434, 7435, 7436],
     [7437, 7438, 7439, 7452, 7468, 7440, 7446, 7448],
     [7447, 7441, 7445, 7442, 7444, 7443, 7447, 7449],
     [7450, 7451, 7453, 7454, 7456, 7483, 7489, 7498],
     [7453, 7454, 7456, 7452, 7464, 7468, 7455, 7457],
     [7459, 7458, 7460, 7461, 7463, 7460, 7461, 7462],
     [7465, 7466, 7482, 7465, 7466, 7452, 7468, 7467],
     [7469, 7470, 7472, 7479, 7471, 7473, 7475, 7474],
     [7476, 7478, 7477, 7480, 7468, 7481, 7484, 7452],
     [7485, 7468, 7486, 7487, 7486, 7487, 7488, 7490],
     [7491, 7452, 7485, 7468, 7492, 7493, 7494, 7495],
     [7496, 7495, 7496, 7452, 7468, 7497, 7499, 7500],
     [7501, 7502, 7503, 7504, 7505, 7506, 7507, 7508],
     [7509, 7511, 7515, 7520, 7523, 7508, 7509, 7452],
     [7468, 7510, 7512, 7513, 7514, 7452, 7468, 7516],
     [7518, 7517, 7452, 7468, 7519, 7452, 7468, 7521],
     [7522, 7452, 7468, 7524, 7452, 7468, 7525, 7452],
     [7468, 7527, 7540, 7542, 7541, 7528, 7529, 7536],
     [7538, 7537, 7530, 7531, 7532, 7534, 7533, 7439],
     [7452, 7468, 7535, 7539, 7543, 7545, 7432, 7547],
     [7168, 7550, 7551, 7552, 7553, 7582, 7583, 9],
     [7553, 7554, 7555, 7560, 7555, 7554, 7556, 7557],
     [7558, 7557, 7558, 7554, 7559, 7561, 7562, 7563],
     [7564, 7565, 7566, 7567, 7568, 7569, 7570, 7571],
     [7572, 7573, 7574, 7576, 7579, 7574, 7575, 9],
     [7554, 7577, 7578, 7576, 7579, 7580, 7581, 7582],
     [7583, 7584, 7586, 7587, 6, 7589, 7590, 6],
     [7592, 7593, 7594, 7595, 7596, 6, 7598, 7599],
     [7600, 7601, 7602, 7603, 7612, 7604, 7605, 7611],
     [7606, 7607, 7608, 7609, 7610, 18, 7610, 18],
     [7614, 7615, 7617, 7616, 6, 7618, 7619, 7620],
     [6, 7622, 7623, 7624, 7625, 7626, 7627, 6],
     [7629, 7630, 7631, 7632, 7633, 6, 7635, 7636],
     [7637, 7638, 7639, 7640, 6, 7642, 7646, 7643],
     [7644, 7645, 6, 7647, 7652, 7654, 7648, 7649],
     [7650, 7651, 6, 7653, 6, 7655, 6, 7657],
     [7658, 7661, 7659, 7660, 6, 7662, 7663, 7664],
     [7665, 7666, 6, 7668, 7672, 7669, 7670, 7671],
     [6, 7673, 7674, 7675, 7676, 7677, 7678, 7679],
     [6, 7681, 7682, 7683, 7684, 7685, 6]]"

definition smp_trans_targs :: "int list" where
  "smp_trans_targs =
     concat smp_trans_targs_1 @ concat smp_trans_targs_2 @ concat smp_trans_targs_3 @
     concat smp_trans_targs_4 @ concat smp_trans_targs_5 @ concat smp_trans_targs_6 @
     concat smp_trans_targs_7 @ concat smp_trans_targs_8"

definition smp_trans_actions_1 :: "int list list" where
  "smp_trans_actions_1 =
    [[0, 0, 1, 1, 1, 1, 1, 1],
     [1, 1, 1, 1, 1, 1, 1, 1],
     [0, 0, 80, 546, 0, 408, 408, 408],
     [0, 164, 59, 0, 0, 0, 0, 0],
     [0, 1, 1, 0, 0, 0, 0, 0],
     [0, 0, 0, 11, 0, 0, 9, 119],
     [119, 119, 119, 119, 119, 119, 119, 119],
     [119, 119, 119, 75, 3, 0, 3, 0],
     [0, 5, 5, 5, 5, 5, 5, 5],
     [104, 0, 0, 0, 0, 0, 0, 7],
     [0, 0, 0, 0, 0, 0, 0, 0],
     [0, 89, 89, 0, 0, 0, 101, 0],
     [0, 149, 0, 0, 0, 0, 0, 0],
     [0, 0, 0, 260, 260, 0, 0, 116],
     [280, 276, 446, 116, 451, 0, 0, 116],
     [280, 0, 0, 0, 227, 0, 0, 158],
     [0, 1, 1, 1, 1, 1, 1, 1],
     [1, 0, 0, 0, 37, 0, 0, 0],
     [1, 1, 1, 1, 1, 0, 0, 0],
     [0, 0, 0, 0, 39, 39, 173, 170],
     [1, 1, 1, 1, 0, 0, 0, 0],
     [0, 45, 191, 188, 47, 47, 47, 47],
     [47, 0, 0, 194, 49, 360, 348, 0],
     [51, 51, 49, 0, 0, 206, 404, 364],
     [0, 416, 416, 671, 1, 0, 7, 67],
     [0, 0, 0, 7, 677, 803, 456, 810],
     [0, 67, 683, 57, 224, 0, 57, 0],
     [7, 0, 0, 248, 248, 0, 0, 0],
     [107, 107, 264, 421, 107, 426, 426, 426],
     [0, 0, 107, 107, 0, 0, 0, 227],
     [227, 227, 0, 164, 0, 0, 0, 0],
     [0, 59, 0, 0, 0, 0, 0, 0],
     [0, 0, 0, 0, 0, 0, 0, 0],
     [0, 0, 0, 0, 0, 0, 0, 0],
     [0, 0, 0, 0, 0, 0, 0, 0],
     [0, 7, 0, 0, 0, 7, 0, 0],
     [0, 0, 0, 0, 0, 0, 7, 0],
     [0, 0, 0, 0, 0, 0, 0, 0],
     [0, 0, 0, 0, 0, 0, 0, 0],
     [0, 0, 0, 0, 0, 0, 0, 0],
     [0, 0, 0, 0, 0, 0, 0, 0],
     [0, 0, 0, 0, 0, 0, 0, 0],
     [0, 0, 0, 0, 0, 0, 0, 0],
     [0, 0, 0, 0, 0, 0, 0, 0],
     [0, 0, 0, 0, 0, 0, 0, 0],
     [0, 0, 0, 0, 0, 0, 0, 0],
     [0, 0, 0, 0, 0, 0, 0, 0],
     [0, 0, 0, 0, 0, 0, 0, 0],
     [0, 0, 0, 0, 0, 0, 0, 0],
     [0, 0, 0, 0, 0, 0, 0, 0],
     [0, 0, 0, 0, 0, 0, 0, 0],
     [0, 0, 0, 0, 0, 0, 0, 0],
     [0, 0, 0, 0, 0, 0, 0, 0],
     [0, 0, 0, 0, 0, 0, 0, 0],
     [0, 0, 0, 0, 0, 0, 0, 0],
     [0, 0, 0, 0, 0, 0, 0, 0],
     [0, 0, 0, 0, 0, 0, 0, 0],
     [0, 0, 0, 0, 0, 0, 0, 0],
     [0, 0, 0, 0, 3, 3, 0, 0],
     [104, 101, 0, 0, 104, 73, 245, 0],
     [73, 0, 0, 0, 0, 0, 0, 1],
     [0, 0, 0, 98, 98, 0, 0, 0],
     [101, 0, 0, 155, 0, 0, 0, 0],
     [0, 0, 0, 0, 0, 0, 0, 0],
     [0, 0, 0, 0, 0, 0, 0, 95],
     [95, 0, 0, 0, 101, 0, 0, 152],
     [0, 0, 0, 0, 0, 0, 0, 0],
     [0, 0, 0, 0, 0, 0, 0, 3],
     [3, 0, 0, 0, 101, 0, 0, 71],
     [242, 0, 71, 0, 0, 0, 0, 0],
     [0, 1, 0, 0, 0, 0, 0, 0],
     [0, 0, 0, 0, 3, 3, 0, 0],
     [0, 101, 0, 0, 69, 239, 0, 69],
     [0, 0, 0, 0, 0, 0, 1, 0],
     [0, 0, 0, 0, 0, 0, 0, 0],
     [0, 0, 252, 252, 0, 0, 0, 110],
     [110, 268, 431, 110, 436, 436, 436, 0],
     [0, 110, 110, 0, 0, 0, 227, 227],
     [227, 0, 164, 0, 0, 0, 0, 0],
     [59, 0, 0, 0, 0, 0, 0, 0],
     [0, 0, 0, 0, 0, 0, 0, 0],
     [0, 0, 0, 0, 0, 0, 0, 0],
     [0, 0, 0, 0, 0, 0, 0, 0],
     [7, 0, 0, 0, 7, 0, 0, 0],
     [0, 0, 0, 0, 0, 7, 0, 0],
     [0, 0, 0, 0, 0, 0, 0, 0],
     [0, 0, 0, 0, 0, 0, 0, 0],
     [0, 0, 0, 0, 0, 0, 0, 0],
     [0, 0, 0, 0, 0, 0, 0, 0],
     [0, 0, 0, 0, 0, 0, 0, 0],
     [0, 0, 0, 0, 0, 0, 0, 0],
     [0, 0, 0, 0, 0, 0, 0, 0],
     [0, 0, 0, 0, 0, 0, 0, 0],
     [0, 0, 0, 0, 0, 0, 0, 0],
     [0, 0, 0, 0, 0, 0, 0, 0],
     [0, 0, 0, 0, 0, 0, 0, 0],
     [0, 0, 0, 0, 0, 0, 0, 0],
     [0, 0, 0, 0, 0, 0, 0, 0],
     [0, 0, 0, 0, 0, 0, 0, 0],
     [0, 0, 0, 0, 0, 0, 0, 0],
     [0, 0, 0, 0, 0, 0, 0, 0],
     [0, 0, 0, 0, 0, 0, 0, 0],
     [0, 0, 0, 0, 0, 0, 0, 0],
     [0, 0, 0, 0, 0, 0, 0, 0],
     [0, 0, 0, 0, 0, 0, 0, 0],
     [0, 0, 0, 0, 0, 0, 0, 0],
     [0, 0, 0, 86, 86, 0, 0, 0],
     [0, 128, 0, 0, 0, 0, 0, 0],
     [0, 0, 0, 0, 0, 0, 0, 0],
     [0, 0, 0, 0, 0, 0, 0, 0],
     [0, 1, 1, 1, 1, 1, 1, 0],
     [0, 0, 0, 0, 0, 0, 300, 300],
     [300, 0, 0, 23, 131, 0, 0, 0],
     [0, 0, 0, 0, 0, 284, 0, 0],
     [0, 1, 1, 1, 1, 0, 0, 0],
     [0, 0, 0, 0, 304, 304, 304, 134],
     [0, 0, 0, 0, 0, 17, 17, 17],
     [17, 0, 0, 292, 292, 0, 292, 122],
     [19, 0, 0, 0, 0, 0, 0, 21],
     [21, 21, 0, 0, 296, 296, 0, 296],
     [125, 0, 0, 0, 0, 0, 0, 0],
     [0, 0, 0, 0, 0, 0, 0, 0],
     [0, 0, 0, 0, 0, 0, 0, 0],
     [0, 0, 0, 0, 0, 0, 0, 0],
     [0, 0, 0, 0, 0, 0, 0, 0],
     [0, 0, 0, 0, 0, 0, 0, 0],
     [0, 0, 0, 0, 0, 0, 0, 0],
     [0, 0, 0, 0, 0, 0, 0, 0],
     [0, 0, 0, 0, 0, 0, 0, 0],
     [0, 0, 0, 0, 0, 0, 0, 0],
     [0, 0, 0, 0, 0, 0, 0, 0],
     [0, 0, 0, 0, 0, 0, 0, 0],
     [0, 0, 0, 0, 0, 0, 0, 0],
     [0, 0, 0, 0, 0, 0, 0, 0],
     [0, 0, 0, 0, 0, 0, 0, 0],
     [0, 0, 0, 0, 0, 0, 0, 0],
     [0, 0, 0, 0, 0, 0, 0, 0],
     [0, 0, 0, 0, 0, 0, 0, 0],
     [0, 0, 0, 0, 0, 0, 0, 0],
     [0, 0, 0, 0, 0, 0, 0, 0],
     [0, 0, 0, 0, 0, 0, 0, 146],
     [146, 146, 33, 33, 0, 0, 0, 0],
     [0, 0, 0, 0, 0, 7, 7, 7],
     [0, 0, 0, 0, 0, 0, 0, 0],
     [0, 0, 0, 0, 1, 1, 0, 0],
     [137, 137, 0, 137, 25, 0, 0, 0],
     [0, 0, 0, 27, 0, 0, 0, 0],
     [0, 0, 0, 0, 0, 0, 0, 0],
     [0, 0, 1, 1, 1, 1, 1, 1],
     [0, 0, 0, 0, 0, 0, 0, 0]]"

definition smp_trans_actions_2 :: "int list list" where
  "smp_trans_actions_2 =
    [[0, 0, 0, 0, 0, 0, 0, 0],
     [0, 0, 0, 140, 140, 140, 29, 0],
     [0, 0, 0, 0, 0, 0, 0, 0],
     [0, 0, 0, 0, 0, 0, 0, 0],
     [0, 0, 0, 0, 0, 0, 0, 0],
     [0, 0, 0, 0, 0, 0, 0, 0],
     [0, 0, 0, 0, 0, 0, 0, 0],
     [0, 0, 0, 0, 0, 0, 0, 0],
     [0, 0, 0, 0, 0, 0, 0, 0],
     [0, 0, 0, 0, 0, 0, 0, 0],
     [0, 0, 0, 0, 0, 0, 0, 0],
     [0, 0, 0, 0, 0, 0, 0, 0],
     [0, 0, 0, 0, 0, 0, 0, 0],
     [0, 0, 0, 0, 0, 0, 0, 0],
     [0, 0, 0, 0, 0, 0, 0, 0],
     [0, 0, 0, 0, 0, 0, 0, 0],
     [0, 0, 0, 0, 0, 0, 0, 0],
     [0, 0, 0, 0, 0, 0, 0, 0],
     [0, 0, 0, 0, 0, 0, 0, 0],
     [0, 143, 143, 143, 31, 31, 0, 0],
     [0, 0, 0, 0, 0, 0, 0, 0],
     [0, 0, 0, 0, 0, 0, 0, 0],
     [0, 0, 0, 0, 0, 0, 0, 0],
     [0, 0, 0, 0, 0, 0, 0, 0],
     [0, 0, 0, 0, 0, 0, 0, 0],
     [0, 0, 0, 0, 0, 0, 0, 0],
     [0, 0, 0, 0, 0, 0, 0, 0],
     [0, 0, 0, 0, 0, 0, 0, 0],
     [0, 0, 0, 0, 0, 0, 0, 0],
     [0, 0, 0, 0, 0, 0, 0, 0],
     [0, 0, 0, 0, 0, 0, 0, 0],
     [0, 0, 0, 0, 0, 0, 0, 0],
     [0, 0, 0, 0, 0, 0, 0, 0],
     [0, 0, 0, 0, 0, 0, 0, 0],
     [0, 0, 0, 0, 0, 0, 0, 0],
     [0, 0, 0, 0, 0, 0, 0, 0],
     [0, 0, 0, 0, 0, 0, 0, 0],
     [0, 0, 0, 0, 0, 0, 0, 0],
     [0, 0, 0, 0, 0, 0, 0, 0],
     [0, 0, 0, 0, 0, 0, 0, 0],
     [0, 0, 0, 0, 0, 0, 0, 0],
     [0, 0, 0, 0, 0, 0, 0, 0],
     [0, 0, 0, 0, 0, 0, 0, 0],
     [0, 0, 0, 0, 0, 0, 0, 0],
     [0, 0, 0, 0, 0, 0, 0, 7],
     [0, 0, 0, 0, 0, 1, 0, 0],
     [63, 236, 0, 63, 0, 0, 0, 0],
     [0, 0, 0, 0, 0, 0, 0, 0],
     [0, 0, 0, 0, 0, 0, 0, 0],
     [0, 0, 0, 0, 0, 0, 0, 0],
     [0, 0, 0, 0, 0, 0, 0, 0],
     [0, 0, 0, 0, 0, 0, 0, 0],
     [0, 0, 0, 0, 0, 0, 0, 0],
     [0, 0, 0, 0, 0, 0, 0, 0],
     [0, 0, 0, 0, 0, 0, 0, 0],
     [0, 0, 0, 0, 0, 0, 0, 0],
     [0, 0, 0, 0, 0, 0, 0, 0],
     [0, 0, 0, 0, 0, 0, 0, 0],
     [0, 0, 0, 0, 0, 0, 0, 0],
     [0, 0, 0, 0, 0, 0, 0, 0],
     [0, 0, 0, 0, 0, 0, 0, 0],
     [0, 0, 0, 0, 0, 0, 0, 0],
     [0, 0, 0, 0, 0, 0, 0, 0],
     [0, 0, 0, 0, 0, 0, 0, 0],
     [0, 0, 0, 0, 0, 0, 0, 0],
     [0, 0, 0, 0, 0, 0, 0, 0],
     [0, 0, 0, 0, 0, 0, 0, 0],
     [0, 0, 0, 0, 0, 0, 0, 0],
     [0, 0, 0, 0, 0, 0, 0, 0],
     [0, 0, 0, 0, 0, 0, 0, 0],
     [0, 0, 0, 0, 0, 0, 0, 0],
     [0, 0, 0, 0, 0, 0, 0, 0],
     [0, 0, 0, 0, 0, 0, 0, 0],
     [0, 0, 0, 0, 0, 0, 0, 0],
     [0, 0, 0, 0, 0, 0, 0, 0],
     [0, 0, 0, 0, 0, 0, 0, 0],
     [0, 0, 0, 0, 0, 0, 0, 0],
     [0, 0, 0, 0, 0, 0, 0, 0],
     [0, 0, 0, 0, 0, 0, 0, 0],
     [0, 0, 0, 0, 0, 0, 0, 0],
     [0, 0, 0, 0, 0, 0, 0, 0],
     [0, 0, 0, 0, 0, 0, 0, 0],
     [0, 0, 0, 0, 0, 0, 0, 0],
     [0, 0, 0, 0, 0, 0, 0, 0],
     [0, 0, 0, 0, 0, 0, 0, 0],
     [0, 0, 0, 0, 0, 0, 0, 0],
     [0, 0, 0, 0, 0, 0, 0, 0],
     [0, 0, 0, 0, 0, 0, 0, 0],
     [0, 0, 0, 0, 0, 0, 0, 0],
     [0, 0, 0, 0, 0, 0, 0, 0],
     [0, 0, 0, 0, 0, 0, 0, 0],
     [0, 0, 0, 0, 0, 0, 0, 0],
     [0, 0, 0, 0, 0, 0, 0, 0],
     [0, 0, 0, 0, 0, 0, 0, 0],
     [0, 0, 0, 0, 0, 0, 0, 0],
     [0, 158, 0, 1, 1, 1, 1, 1],
     [1, 1, 1, 0, 0, 0, 37, 0],
     [0, 0, 1, 1, 1, 1, 1, 0],
     [0, 0, 0, 0, 0, 0, 39, 39],
     [173, 170, 1, 1, 1, 1, 0, 0],
     [0, 0, 0, 45, 191, 188, 47, 47],
     [47, 47, 47, 0, 0, 194, 49, 360],
     [348, 0, 51, 51, 49, 0, 0, 206],
     [404, 364, 0, 0, 0, 0, 0, 0],
     [0, 209, 0, 0, 352, 197, 556, 551],
     [51, 51, 0, 0, 0, 0, 0, 1],
     [0, 0, 356, 200, 566, 561, 0, 0],
     [49, 203, 203, 1, 0, 0, 400, 651],
     [646, 0, 0, 55, 221, 218, 0, 0],
     [0, 0, 0, 0, 0, 0, 49, 203],
     [203, 203, 203, 203, 203, 1, 0, 0],
     [396, 641, 636, 0, 0, 53, 215, 212],
     [0, 0, 0, 384, 611, 606, 0, 0],
     [0, 376, 591, 586, 0, 380, 601, 596],
     [0, 0, 372, 581, 576, 0, 388, 621],
     [616, 0, 392, 631, 626, 0, 0, 0],
     [0, 0, 0, 0, 0, 0, 0, 0],
     [0, 0, 0, 0, 0, 0, 0, 41],
     [41, 179, 176, 0, 0, 0, 0, 0],
     [0, 0, 0, 0, 0, 0, 0, 0],
     [0, 0, 0, 0, 0, 0, 0, 0],
     [0, 0, 0, 0, 0, 0, 0, 0],
     [0, 0, 0, 0, 0, 0, 0, 0],
     [0, 0, 0, 0, 0, 0, 0, 0],
     [0, 0, 0, 0, 0, 0, 0, 0],
     [0, 0, 0, 0, 0, 0, 0, 0],
     [0, 0, 0, 0, 0, 43, 43, 185],
     [182, 0, 0, 0, 0, 0, 0, 0],
     [0, 0, 0, 0, 0, 0, 0, 0],
     [0, 0, 0, 0, 0, 0, 0, 0],
     [0, 0, 0, 0, 0, 0, 0, 0],
     [0, 0, 0, 0, 0, 0, 0, 0],
     [0, 0, 0, 0, 0, 0, 0, 0],
     [0, 0, 0, 0, 0, 0, 0, 0],
     [0, 0, 0, 0, 0, 0, 0, 0],
     [0, 0, 0, 0, 0, 0, 0, 0],
     [0, 0, 0, 0, 0, 0, 0, 0],
     [0, 0, 0, 0, 0, 0, 0, 0],
     [0, 0, 0, 0, 0, 0, 0, 0],
     [0, 0, 0, 39, 39, 170, 1, 1],
     [1, 1, 0, 0, 0, 0, 0, 0],
     [0, 0, 0, 47, 47, 47, 47, 47],
     [47, 0, 0, 0, 194, 49, 348, 0],
     [0, 49, 0, 51, 51, 49, 0, 0],
     [0, 51, 51, 49, 0, 0, 206, 364],
     [0, 0, 0, 0, 0, 0, 0, 0],
     [0, 0, 0, 0, 0, 0, 0, 0],
     [352, 197, 551, 51, 51, 0, 0, 0],
     [0, 0, 356, 200, 561, 0, 0, 49],
     [203, 203, 0, 0, 400, 646, 0, 0]]"

definition smp_trans_actions_3 :: "int list list" where
  "smp_trans_actions_3 =
    [[0, 0, 0, 0, 0, 0, 0, 49],
     [203, 203, 203, 203, 203, 203, 0, 0],
     [396, 636, 0, 0, 0, 0, 384, 606],
     [0, 0, 0, 376, 586, 0, 380, 596],
     [0, 0, 372, 576, 0, 388, 616, 0],
     [392, 626, 0, 0, 0, 0, 0, 0],
     [0, 0, 0, 0, 0, 0, 0, 0],
     [41, 41, 176, 0, 0, 0, 0, 0],
     [0, 161, 0, 0, 0, 308, 308, 308],
     [0, 37, 167, 47, 47, 0, 194, 49],
     [51, 51, 0, 0, 206, 0, 0, 0],
     [0, 0, 0, 0, 0, 0, 0, 0],
     [0, 0, 49, 203, 203, 203, 0, 0],
     [368, 571, 0, 0, 0, 0, 0, 0],
     [0, 0, 0, 57, 57, 0, 57, 0],
     [0, 0, 0, 0, 0, 0, 0, 0],
     [0, 0, 0, 0, 0, 57, 57, 0],
     [0, 0, 164, 59, 230, 0, 0, 0],
     [0, 0, 59, 0, 0, 0, 0, 0],
     [0, 0, 0, 0, 0, 0, 0, 0],
     [0, 0, 0, 0, 0, 0, 0, 0],
     [0, 0, 0, 0, 0, 0, 0, 0],
     [0, 0, 0, 0, 0, 0, 0, 0],
     [0, 0, 0, 0, 0, 0, 0, 0],
     [0, 0, 0, 0, 0, 0, 0, 0],
     [0, 0, 0, 0, 0, 0, 0, 0],
     [0, 0, 0, 0, 0, 0, 0, 0],
     [0, 0, 0, 0, 0, 0, 0, 0],
     [0, 0, 0, 0, 0, 0, 0, 0],
     [0, 0, 0, 0, 0, 0, 0, 0],
     [0, 0, 0, 0, 0, 0, 0, 0],
     [0, 0, 0, 0, 0, 0, 0, 0],
     [0, 0, 0, 0, 0, 0, 0, 0],
     [0, 0, 0, 0, 0, 0, 0, 0],
     [0, 0, 0, 0, 0, 0, 0, 0],
     [0, 0, 0, 0, 0, 0, 0, 0],
     [0, 0, 0, 0, 0, 0, 0, 0],
     [0, 0, 0, 0, 0, 0, 0, 0],
     [0, 0, 0, 0, 0, 0, 0, 0],
     [0, 0, 0, 0, 0, 0, 0, 0],
     [0, 0, 0, 0, 0, 0, 0, 0],
     [0, 0, 0, 0, 0, 0, 0, 0],
     [0, 0, 0, 0, 0, 0, 0, 0],
     [0, 0, 0, 0, 0, 0, 0, 0],
     [0, 0, 0, 0, 0, 0, 0, 0],
     [0, 0, 0, 0, 0, 0, 0, 0],
     [0, 0, 0, 0, 0, 0, 0, 0],
     [0, 0, 0, 0, 0, 0, 0, 0],
     [0, 0, 0, 0, 0, 0, 0, 0],
     [0, 0, 0, 0, 0, 0, 0, 0],
     [0, 0, 0, 0, 0, 0, 0, 0],
     [0, 0, 0, 0, 0, 0, 0, 0],
     [0, 0, 0, 0, 0, 0, 0, 0],
     [0, 0, 0, 0, 0, 0, 0, 0],
     [0, 0, 0, 0, 0, 0, 0, 0],
     [0, 0, 0, 0, 0, 0, 0, 0],
     [0, 0, 0, 0, 0, 0, 0, 0],
     [0, 0, 0, 0, 0, 0, 0, 0],
     [0, 0, 0, 0, 0, 0, 0, 0],
     [0, 0, 0, 0, 0, 0, 0, 0],
     [0, 0, 0, 0, 0, 0, 0, 0],
     [0, 0, 0, 0, 0, 0, 0, 0],
     [0, 0, 0, 0, 0, 0, 0, 0],
     [0, 0, 0, 0, 0, 0, 0, 0],
     [0, 0, 0, 0, 0, 0, 0, 0],
     [0, 0, 0, 0, 0, 0, 0, 0],
     [0, 0, 0, 0, 0, 0, 0, 0],
     [0, 0, 0, 0, 0, 0, 0, 0],
     [0, 0, 0, 0, 0, 0, 0, 0],
     [0, 0, 0, 0, 0, 0, 0, 0],
     [0, 0, 0, 0, 0, 158, 0, 1],
     [1, 1, 1, 1, 1, 1, 1, 0],
     [0, 0, 37, 0, 0, 0, 1, 1],
     [1, 1, 1, 0, 0, 0, 0, 0],
     [173, 320, 0, 0, 39, 173, 1, 1],
     [1, 1, 0, 0, 0, 0, 0, 191],
     [344, 191, 0, 0, 0, 0, 0, 0],
     [0, 0, 0, 0, 0, 0, 0, 0],
     [0, 0, 0, 0, 179, 328, 41, 179],
     [0, 0, 0, 0, 0, 0, 0, 0],
     [0, 0, 0, 0, 0, 0, 0, 0],
     [0, 0, 0, 0, 0, 0, 0, 0],
     [0, 0, 0, 0, 0, 0, 0, 0],
     [0, 0, 0, 0, 0, 0, 0, 0],
     [0, 0, 0, 0, 0, 0, 0, 0],
     [0, 0, 0, 0, 0, 0, 0, 0],
     [0, 0, 0, 0, 0, 0, 0, 0],
     [0, 0, 185, 336, 43, 185, 0, 0],
     [0, 0, 0, 0, 0, 0, 0, 0],
     [0, 0, 0, 0, 0, 0, 0, 0],
     [0, 0, 0, 0, 0, 0, 0, 0],
     [0, 0, 0, 0, 0, 0, 0, 0],
     [0, 0, 0, 0, 0, 0, 0, 0],
     [0, 0, 0, 0, 0, 0, 0, 0],
     [0, 0, 0, 0, 0, 0, 0, 0],
     [0, 0, 0, 0, 0, 0, 0, 0],
     [0, 0, 0, 0, 0, 0, 0, 0],
     [0, 0, 0, 0, 0, 0, 0, 0],
     [0, 0, 0, 0, 0, 0, 0, 0],
     [0, 0, 0, 0, 0, 0, 0, 0],
     [39, 1, 1, 1, 1, 0, 0, 0],
     [0, 0, 0, 0, 0, 0, 0, 0],
     [0, 0, 0, 0, 0, 0, 0, 0],
     [0, 0, 0, 0, 41, 0, 0, 0],
     [0, 0, 0, 161, 0, 0, 0, 308],
     [308, 308, 167, 312, 0, 167, 0, 0],
     [0, 0, 0, 0, 256, 256, 0, 0],
     [113, 113, 272, 441, 113, 0, 0, 113],
     [113, 0, 0, 0, 227, 0, 0, 158],
     [0, 1, 1, 1, 1, 1, 1, 1],
     [1, 0, 0, 0, 37, 0, 0, 0],
     [1, 1, 1, 1, 1, 0, 0, 0],
     [0, 0, 0, 0, 39, 39, 173, 170],
     [1, 1, 1, 1, 0, 0, 0, 0],
     [0, 45, 191, 188, 47, 47, 47, 47],
     [47, 0, 0, 194, 49, 360, 348, 0],
     [51, 51, 49, 0, 0, 206, 404, 364],
     [0, 7, 7, 7, 0, 0, 0, 0],
     [0, 0, 0, 791, 845, 656, 0, 0],
     [656, 57, 57, 0, 57, 0, 0, 0],
     [0, 0, 0, 0, 0, 0, 0, 0],
     [0, 0, 0, 57, 57, 0, 0, 0],
     [0, 0, 0, 7, 7, 0, 0, 0],
     [0, 0, 0, 0, 0, 0, 0, 0],
     [0, 0, 0, 0, 0, 0, 0, 0],
     [0, 0, 0, 0, 0, 0, 0, 0],
     [0, 0, 0, 0, 0, 0, 0, 0],
     [0, 0, 0, 0, 0, 0, 0, 0],
     [0, 0, 0, 0, 0, 0, 0, 0],
     [0, 0, 0, 0, 0, 0, 0, 0],
     [0, 0, 0, 0, 0, 0, 0, 0],
     [0, 0, 0, 0, 0, 0, 0, 0],
     [0, 0, 0, 0, 0, 0, 0, 0],
     [0, 0, 0, 0, 0, 0, 0, 0],
     [0, 0, 0, 0, 0, 0, 0, 0],
     [0, 0, 0, 0, 0, 0, 0, 0],
     [0, 0, 0, 0, 0, 0, 0, 0],
     [0, 0, 0, 0, 0, 0, 0, 0],
     [0, 0, 0, 0, 0, 0, 0, 0],
     [0, 0, 0, 0, 0, 0, 0, 0],
     [0, 0, 0, 0, 0, 0, 0, 0],
     [0, 0, 0, 0, 0, 0, 0, 0],
     [0, 0, 0, 0, 0, 0, 0, 0],
     [0, 0, 0, 0, 0, 0, 0, 0],
     [0, 0, 0, 0, 0, 0, 0, 209],
     [0, 0, 352, 197, 556, 551, 51, 51],
     [0, 0, 0, 0, 0, 59, 1, 0],
     [0, 356, 200, 566, 561, 0, 0, 49],
     [203, 203, 1, 0, 0, 400, 651, 646],
     [0, 0, 55, 221, 218, 0, 0, 0]]"

definition smp_trans_actions_4 :: "int list list" where
  "smp_trans_actions_4 =
    [[0, 0, 0, 0, 0, 49, 203, 203],
     [203, 203, 203, 203, 1, 0, 0, 396],
     [641, 636, 0, 0, 53, 215, 212, 0],
     [0, 0, 384, 611, 606, 0, 0, 0],
     [376, 591, 586, 0, 380, 601, 596, 0],
     [0, 372, 581, 576, 0, 388, 621, 616],
     [0, 392, 631, 626, 0, 0, 0, 0],
     [0, 0, 0, 0, 0, 0, 0, 0],
     [0, 0, 0, 0, 0, 0, 41, 41],
     [179, 176, 0, 0, 0, 0, 0, 0],
     [0, 0, 0, 0, 0, 0, 0, 0],
     [0, 0, 0, 0, 0, 0, 0, 0],
     [0, 0, 0, 0, 0, 0, 0, 0],
     [0, 0, 0, 0, 0, 0, 0, 0],
     [0, 0, 0, 0, 0, 0, 0, 0],
     [0, 0, 0, 0, 0, 0, 0, 0],
     [0, 0, 0, 0, 0, 0, 0, 0],
     [0, 0, 0, 0, 43, 43, 185, 182],
     [0, 0, 0, 0, 0, 0, 0, 0],
     [0, 0, 0, 0, 0, 0, 0, 0],
     [0, 0, 0, 0, 0, 0, 0, 0],
     [0, 0, 0, 0, 0, 0, 0, 0],
     [0, 0, 0, 0, 0, 0, 0, 0],
     [0, 0, 0, 0, 0, 0, 0, 0],
     [0, 0, 0, 0, 0, 0, 0, 0],
     [0, 0, 0, 0, 0, 0, 0, 0],
     [0, 0, 0, 0, 0, 0, 0, 0],
     [0, 0, 0, 0, 0, 0, 0, 0],
     [0, 0, 0, 0, 0, 0, 0, 0],
     [0, 0, 0, 0, 0, 0, 0, 0],
     [0, 0, 39, 39, 170, 1, 1, 1],
     [1, 0, 0, 0, 0, 0, 0, 0],
     [0, 0, 47, 47, 47, 47, 47, 47],
     [0, 0, 0, 194, 49, 348, 0, 0],
     [49, 0, 51, 51, 49, 0, 0, 0],
     [51, 51, 49, 0, 0, 206, 364, 0],
     [0, 0, 0, 0, 0, 0, 0, 0],
     [0, 0, 0, 0, 0, 0, 0, 352],
     [197, 551, 51, 51, 0, 0, 0, 0],
     [0, 356, 200, 561, 0, 0, 49, 203],
     [203, 0, 0, 400, 646, 0, 0, 0],
     [0, 0, 0, 0, 0, 0, 49, 203],
     [203, 203, 203, 203, 203, 0, 0, 396],
     [636, 0, 0, 0, 0, 384, 606, 0],
     [0, 0, 376, 586, 0, 380, 596, 0],
     [0, 372, 576, 0, 388, 616, 0, 392],
     [626, 0, 0, 0, 0, 0, 0, 0],
     [0, 0, 0, 0, 0, 0, 0, 41],
     [41, 176, 0, 0, 0, 0, 0, 0],
     [161, 0, 0, 0, 7, 0, 0, 0],
     [0, 0, 1, 0, 0, 61, 233, 0],
     [61, 0, 0, 0, 0, 0, 0, 0],
     [0, 0, 0, 0, 0, 0, 0, 0],
     [0, 0, 0, 0, 0, 0, 0, 0],
     [0, 0, 0, 0, 0, 0, 0, 0],
     [0, 0, 0, 0, 0, 0, 0, 0],
     [0, 0, 0, 0, 0, 0, 0, 0],
     [0, 0, 0, 0, 0, 0, 0, 0],
     [0, 0, 0, 0, 0, 0, 0, 0],
     [0, 0, 0, 0, 0, 0, 0, 0],
     [0, 0, 0, 0, 0, 0, 0, 0],
     [0, 0, 0, 0, 0, 0, 0, 0],
     [0, 0, 0, 0, 0, 0, 0, 0],
     [0, 0, 0, 0, 0, 0, 0, 0],
     [0, 0, 0, 0, 0, 0, 0, 0],
     [0, 0, 0, 0, 0, 0, 0, 0],
     [0, 0, 0, 0, 0, 0, 0, 0],
     [0, 0, 0, 0, 0, 0, 0, 0],
     [0, 0, 0, 0, 0, 0, 0, 0],
     [0, 0, 0, 0, 0, 0, 0, 0],
     [0, 0, 0, 0, 0, 0, 0, 0],
     [0, 0, 0, 0, 0, 0, 0, 0],
     [0, 0, 0, 0, 0, 0, 0, 0],
     [0, 0, 0, 0, 0, 0, 0, 0],
     [0, 0, 0, 0, 0, 0, 0, 0],
     [0, 0, 0, 0, 0, 0, 0, 0],
     [0, 0, 0, 0, 0, 0, 0, 0],
     [0, 0, 0, 0, 0, 0, 0, 0],
     [0, 0, 0, 0, 0, 0, 0, 0],
     [0, 0, 0, 0, 0, 0, 0, 0],
     [0, 0, 0, 0, 0, 0, 0, 0],
     [0, 0, 0, 0, 0, 0, 0, 0],
     [0, 0, 0, 0, 0, 0, 0, 0],
     [0, 0, 0, 0, 0, 0, 0, 0],
     [0, 0, 0, 0, 0, 0, 0, 0],
     [0, 0, 0, 0, 0, 0, 0, 0],
     [0, 0, 0, 0, 0, 0, 0, 0],
     [0, 0, 0, 0, 0, 0, 0, 0],
     [0, 0, 0, 0, 0, 0, 0, 0],
     [0, 0, 0, 0, 0, 0, 0, 0],
     [0, 0, 0, 0, 0, 0, 0, 0],
     [0, 0, 0, 0, 0, 0, 0, 0],
     [0, 0, 0, 0, 0, 0, 0, 0],
     [0, 0, 0, 0, 0, 0, 0, 0],
     [0, 0, 0, 0, 0, 0, 0, 0],
     [0, 0, 0, 0, 0, 0, 0, 0],
     [0, 0, 0, 0, 0, 0, 0, 0],
     [0, 0, 0, 0, 0, 0, 0, 0],
     [0, 0, 0, 0, 0, 0, 0, 0],
     [0, 0, 0, 0, 0, 0, 158, 0],
     [1, 1, 1, 1, 1, 1, 1, 1],
     [0, 0, 0, 37, 0, 0, 0, 1],
     [1, 1, 1, 1, 0, 0, 0, 0],
     [0, 0, 0, 39, 39, 173, 170, 1],
     [1, 1, 1, 0, 0, 0, 0, 0],
     [45, 191, 188, 47, 47, 47, 47, 47],
     [0, 0, 194, 49, 360, 348, 0, 51],
     [51, 49, 0, 0, 206, 404, 364, 0],
     [0, 0, 0, 0, 0, 0, 209, 0],
     [0, 352, 197, 556, 551, 51, 51, 0],
     [0, 0, 0, 0, 1, 0, 0, 356],
     [200, 566, 561, 0, 0, 49, 203, 203],
     [1, 0, 0, 400, 651, 646, 0, 0],
     [55, 221, 218, 0, 0, 0, 0, 0],
     [0, 0, 0, 49, 203, 203, 203, 203],
     [203, 203, 1, 0, 0, 396, 641, 636],
     [0, 0, 53, 215, 212, 0, 0, 0],
     [384, 611, 606, 0, 0, 0, 376, 591],
     [586, 0, 380, 601, 596, 0, 0, 372],
     [581, 576, 0, 388, 621, 616, 0, 392],
     [631, 626, 0, 0, 0, 0, 0, 0],
     [0, 0, 0, 0, 0, 0, 0, 0],
     [0, 0, 0, 0, 41, 41, 179, 176],
     [0, 0, 0, 0, 0, 0, 0, 0],
     [0, 0, 0, 0, 0, 0, 0, 0],
     [0, 0, 0, 0, 0, 0, 0, 0],
     [0, 0, 0, 0, 0, 0, 0, 0],
     [0, 0, 0, 0, 0, 0, 0, 0],
     [0, 0, 0, 0, 0, 0, 0, 0],
     [0, 0, 0, 0, 0, 0, 0, 0],
     [0, 0, 0, 0, 0, 0, 0, 0],
     [0, 0, 43, 43, 185, 182, 0, 0],
     [0, 0, 0, 0, 0, 0, 0, 0],
     [0, 0, 0, 0, 0, 0, 0, 0],
     [0, 0, 0, 0, 0, 0, 0, 0],
     [0, 0, 0, 0, 0, 0, 0, 0],
     [0, 0, 0, 0, 0, 0, 0, 0],
     [0, 0, 0, 0, 0, 0, 0, 0],
     [0, 0, 0, 0, 0, 0, 0, 0],
     [0, 0, 0, 0, 0, 0, 0, 0],
     [0, 0, 0, 0, 0, 0, 0, 0],
     [0, 0, 0, 0, 0, 0, 0, 0],
     [0, 0, 0, 0, 0, 0, 0, 0],
     [0, 0, 0, 0, 0, 0, 0, 0],
     [39, 39, 170, 1, 1, 1, 1, 0],
     [0, 0, 0, 0, 0, 0, 0, 0],
     [47, 47, 47, 47, 47, 47, 0, 0],
     [0, 194, 49, 348, 0, 0, 49, 0],
     [51, 51, 49, 0, 0, 0, 51, 51],
     [49, 0, 0, 206, 364, 0, 0, 0]]"

definition smp_trans_actions_5 :: "int list list" where
  "smp_trans_actions_5 =
    [[0, 0, 0, 0, 0, 0, 0, 0],
     [0, 0, 0, 0, 0, 352, 197, 551],
     [51, 51, 0, 0, 0, 0, 0, 356],
     [200, 561, 0, 0, 49, 203, 203, 0],
     [0, 400, 646, 0, 0, 0, 0, 0],
     [0, 0, 0, 0, 49, 203, 203, 203],
     [203, 203, 203, 0, 0, 396, 636, 0],
     [0, 0, 0, 384, 606, 0, 0, 0],
     [376, 586, 0, 380, 596, 0, 0, 372],
     [576, 0, 388, 616, 0, 392, 626, 0],
     [0, 0, 0, 0, 0, 0, 0, 0],
     [0, 0, 0, 0, 0, 41, 41, 176],
     [0, 0, 0, 0, 0, 0, 161, 0],
     [0, 0, 308, 308, 308, 0, 37, 167],
     [47, 47, 0, 194, 49, 51, 51, 0],
     [0, 206, 0, 0, 0, 0, 0, 0],
     [0, 0, 0, 0, 0, 0, 0, 49],
     [203, 203, 203, 0, 0, 368, 571, 0],
     [0, 0, 0, 0, 0, 0, 0, 0],
     [57, 57, 0, 57, 0, 0, 0, 0],
     [0, 0, 0, 0, 0, 0, 0, 0],
     [0, 0, 57, 57, 0, 0, 0, 164],
     [59, 230, 0, 0, 0, 0, 0, 59],
     [0, 0, 0, 0, 0, 0, 0, 0],
     [0, 0, 0, 0, 0, 0, 0, 0],
     [0, 0, 0, 0, 0, 0, 0, 0],
     [0, 0, 0, 0, 0, 0, 0, 0],
     [0, 0, 0, 0, 0, 0, 0, 0],
     [0, 0, 0, 0, 0, 0, 0, 0],
     [0, 0, 0, 0, 0, 0, 0, 0],
     [0, 0, 0, 0, 0, 0, 0, 0],
     [0, 0, 0, 0, 0, 0, 0, 0],
     [0, 0, 0, 0, 0, 0, 0, 0],
     [0, 0, 0, 0, 0, 0, 0, 0],
     [0, 0, 0, 0, 0, 0, 0, 0],
     [0, 0, 0, 0, 0, 0, 0, 0],
     [0, 0, 0, 0, 0, 0, 0, 0],
     [0, 0, 0, 0, 0, 0, 0, 0],
     [0, 0, 0, 0, 0, 0, 0, 0],
     [0, 0, 0, 0, 0, 0, 0, 0],
     [0, 0, 0, 0, 0, 0, 0, 0],
     [0, 0, 0, 0, 0, 0, 0, 0],
     [0, 0, 0, 0, 0, 0, 0, 0],
     [0, 0, 0, 0, 0, 0, 0, 0],
     [0, 0, 0, 0, 0, 0, 0, 0],
     [0, 0, 0, 0, 0, 0, 0, 0],
     [0, 0, 0, 0, 0, 0, 0, 0],
     [0, 0, 0, 0, 0, 0, 0, 0],
     [0, 0, 0, 0, 0, 0, 0, 0],
     [0, 0, 0, 0, 0, 0, 0, 0],
     [0, 0, 0, 0, 0, 0, 0, 0],
     [0, 0, 0, 0, 0, 0, 0, 0],
     [0, 0, 0, 0, 0, 0, 0, 0],
     [0, 0, 0, 0, 0, 0, 0, 0],
     [0, 0, 0, 0, 0, 0, 0, 0],
     [0, 0, 0, 0, 0, 0, 0, 0],
     [0, 0, 0, 0, 0, 0, 0, 0],
     [0, 0, 0, 0, 0, 0, 0, 0],
     [0, 0, 0, 0, 0, 0, 0, 0],
     [0, 0, 0, 0, 0, 0, 0, 0],
     [0, 0, 0, 0, 0, 0, 0, 0],
     [0, 0, 0, 0, 0, 0, 0, 0],
     [0, 0, 0, 0, 0, 0, 0, 0],
     [0, 0, 0, 0, 0, 0, 0, 0],
     [0, 0, 0, 0, 0, 0, 0, 0],
     [0, 0, 0, 0, 0, 0, 0, 0],
     [0, 0, 0, 0, 0, 0, 0, 0],
     [0, 0, 0, 0, 0, 0, 0, 0],
     [0, 0, 0, 0, 0, 0, 0, 0],
     [0, 0, 0, 0, 0, 0, 0, 0],
     [0, 0, 0, 0, 0, 0, 0, 0],
     [0, 0, 0, 0, 0, 0, 0, 0],
     [0, 0, 0, 0, 0, 0, 0, 0],
     [0, 0, 0, 0, 0, 0, 0, 0],
     [0, 0, 0, 0, 0, 0, 0, 0],
     [0, 0, 158, 0, 1, 1, 1, 1],
     [1, 1, 1, 1, 0, 0, 0, 37],
     [0, 0, 0, 1, 1, 1, 1, 1],
     [0, 0, 0, 0, 0, 173, 320, 0],
     [0, 39, 173, 1, 1, 1, 1, 0],
     [0, 0, 0, 0, 191, 344, 191, 0],
     [0, 0, 0, 0, 0, 0, 0, 0],
     [0, 0, 0, 0, 0, 0, 0, 0],
     [0, 179, 328, 41, 179, 0, 0, 0],
     [0, 0, 0, 0, 0, 0, 0, 0],
     [0, 0, 0, 0, 0, 0, 0, 0],
     [0, 0, 0, 0, 0, 0, 0, 0],
     [0, 0, 0, 0, 0, 0, 0, 0],
     [0, 0, 0, 0, 0, 0, 0, 0],
     [0, 0, 0, 0, 0, 0, 0, 0],
     [0, 0, 0, 0, 0, 0, 0, 0],
     [0, 0, 0, 0, 0, 0, 0, 185],
     [336, 43, 185, 0, 0, 0, 0, 0],
     [0, 0, 0, 0, 0, 0, 0, 0],
     [0, 0, 0, 0, 0, 0, 0, 0],
     [0, 0, 0, 0, 0, 0, 0, 0],
     [0, 0, 0, 0, 0, 0, 0, 0],
     [0, 0, 0, 0, 0, 0, 0, 0],
     [0, 0, 0, 0, 0, 0, 0, 0],
     [0, 0, 0, 0, 0, 0, 0, 0],
     [0, 0, 0, 0, 0, 0, 0, 0],
     [0, 0, 0, 0, 0, 0, 0, 0],
     [0, 0, 0, 0, 0, 0, 0, 0],
     [0, 0, 0, 0, 0, 0, 0, 0],
     [0, 0, 0, 0, 0, 39, 1, 1],
     [1, 1, 0, 0, 0, 0, 0, 0],
     [0, 0, 0, 0, 0, 0, 0, 0],
     [0, 0, 0, 0, 0, 0, 0, 0],
     [0, 41, 0, 0, 0, 0, 0, 0],
     [161, 0, 0, 0, 308, 308, 308, 167],
     [312, 0, 167, 0, 0, 0, 0, 0],
     [0, 0, 0, 0, 0, 0, 7, 0],
     [0, 0, 57, 224, 0, 7, 0, 0],
     [0, 0, 0, 0, 0, 0, 0, 0],
     [57, 57, 57, 0, 0, 0, 0, 0],
     [227, 0, 0, 158, 0, 1, 1, 1],
     [1, 1, 1, 1, 1, 0, 0, 0],
     [37, 0, 0, 0, 1, 1, 1, 1],
     [1, 0, 0, 0, 0, 0, 0, 0],
     [39, 39, 173, 170, 1, 1, 1, 1],
     [0, 0, 0, 0, 0, 45, 191, 188],
     [47, 47, 47, 47, 47, 0, 0, 194],
     [49, 360, 348, 0, 51, 51, 49, 0],
     [0, 206, 404, 364, 0, 416, 416, 671],
     [1, 0, 0, 67, 0, 0, 0, 0],
     [677, 803, 456, 810, 0, 67, 456, 57],
     [57, 0, 0, 0, 0, 0, 0, 0],
     [158, 0, 1, 1, 1, 1, 1, 1],
     [1, 1, 0, 0, 0, 37, 0, 0],
     [0, 1, 1, 1, 1, 1, 0, 0],
     [0, 0, 0, 817, 817, 852, 0, 0],
     [39, 316, 0, 1, 1, 1, 1, 0],
     [0, 0, 0, 0, 838, 838, 876, 340],
     [0, 0, 0, 0, 0, 412, 412, 661],
     [0, 0, 0, 0, 0, 0, 0, 0],
     [0, 0, 0, 412, 412, 0, 0, 0],
     [0, 0, 0, 0, 0, 0, 0, 0],
     [0, 0, 0, 0, 0, 0, 0, 0],
     [0, 0, 0, 0, 0, 0, 0, 0],
     [0, 0, 0, 0, 0, 0, 0, 0],
     [0, 0, 0, 0, 0, 0, 0, 0],
     [0, 0, 0, 0, 0, 0, 0, 0],
     [0, 0, 0, 0, 0, 0, 0, 0],
     [0, 0, 0, 0, 0, 0, 0, 0],
     [0, 0, 0, 0, 0, 0, 0, 0],
     [0, 0, 0, 0, 0, 0, 0, 0],
     [0, 0, 0, 0, 0, 0, 0, 0],
     [0, 0, 0, 0, 0, 0, 0, 0],
     [0, 0, 0, 0, 0, 0, 0, 0],
     [0, 0, 0, 0, 0, 0, 0, 0]]"

definition smp_trans_actions_6 :: "int list list" where
  "smp_trans_actions_6 =
    [[0, 0, 0, 0, 0, 0, 0, 0],
     [0, 0, 0, 0, 0, 0, 0, 0],
     [0, 0, 0, 0, 0, 0, 0, 0],
     [0, 0, 0, 0, 0, 0, 0, 0],
     [0, 0, 0, 0, 0, 0, 0, 0],
     [0, 0, 0, 0, 0, 0, 0, 0],
     [0, 0, 666, 666, 797, 65, 65, 0],
     [0, 0, 0, 0, 0, 0, 0, 0],
     [0, 0, 0, 0, 0, 0, 0, 0],
     [0, 824, 824, 860, 41, 324, 0, 0],
     [0, 0, 0, 0, 0, 0, 0, 0],
     [0, 0, 0, 0, 0, 0, 0, 0],
     [0, 0, 0, 0, 0, 0, 0, 0],
     [0, 0, 0, 0, 0, 0, 0, 0],
     [0, 0, 0, 0, 0, 0, 0, 0],
     [0, 0, 0, 0, 0, 0, 0, 0],
     [0, 0, 0, 0, 0, 0, 0, 0],
     [0, 0, 0, 0, 0, 0, 0, 0],
     [831, 831, 868, 43, 332, 0, 0, 0],
     [0, 0, 0, 0, 0, 0, 0, 0],
     [0, 0, 0, 0, 0, 0, 0, 0],
     [0, 0, 0, 0, 0, 0, 0, 0],
     [0, 0, 0, 0, 0, 0, 0, 0],
     [0, 0, 0, 0, 0, 0, 0, 0],
     [0, 0, 0, 0, 0, 0, 0, 0],
     [0, 0, 0, 0, 0, 0, 0, 0],
     [0, 0, 0, 0, 0, 0, 0, 0],
     [0, 0, 0, 0, 0, 0, 0, 0],
     [0, 0, 0, 0, 0, 0, 0, 0],
     [0, 0, 0, 0, 0, 0, 0, 0],
     [0, 0, 0, 0, 0, 0, 0, 39],
     [1, 1, 1, 1, 0, 0, 0, 0],
     [0, 0, 0, 0, 0, 0, 0, 0],
     [0, 0, 0, 0, 0, 0, 0, 0],
     [0, 0, 0, 41, 0, 0, 0, 0],
     [0, 0, 161, 0, 0, 0, 0, 0],
     [0, 209, 0, 0, 352, 197, 556, 551],
     [51, 51, 0, 0, 0, 0, 0, 59],
     [1, 0, 0, 356, 200, 566, 561, 0],
     [0, 49, 203, 203, 1, 0, 0, 400],
     [651, 646, 0, 0, 55, 221, 218, 0],
     [0, 0, 0, 0, 0, 0, 0, 49],
     [203, 203, 203, 203, 203, 203, 1, 0],
     [0, 396, 641, 636, 0, 0, 53, 215],
     [212, 0, 0, 0, 384, 611, 606, 0],
     [0, 0, 376, 591, 586, 0, 380, 601],
     [596, 0, 0, 372, 581, 576, 0, 388],
     [621, 616, 0, 392, 631, 626, 0, 0],
     [0, 0, 0, 0, 0, 0, 0, 0],
     [0, 0, 0, 0, 0, 0, 0, 0],
     [41, 41, 179, 176, 0, 0, 0, 0],
     [0, 0, 0, 0, 0, 0, 0, 0],
     [0, 0, 0, 0, 0, 0, 0, 0],
     [0, 0, 0, 0, 0, 0, 0, 0],
     [0, 0, 0, 0, 0, 0, 0, 0],
     [0, 0, 0, 0, 0, 0, 0, 0],
     [0, 0, 0, 0, 0, 0, 0, 0],
     [0, 0, 0, 0, 0, 0, 0, 0],
     [0, 0, 0, 0, 0, 0, 43, 43],
     [185, 182, 0, 0, 0, 0, 0, 0],
     [0, 0, 0, 0, 0, 0, 0, 0],
     [0, 0, 0, 0, 0, 0, 0, 0],
     [0, 0, 0, 0, 0, 0, 0, 0],
     [0, 0, 0, 0, 0, 0, 0, 0],
     [0, 0, 0, 0, 0, 0, 0, 0],
     [0, 0, 0, 0, 0, 0, 0, 0],
     [0, 0, 0, 0, 0, 0, 0, 0],
     [0, 0, 0, 0, 0, 0, 0, 0],
     [0, 0, 0, 0, 0, 0, 0, 0],
     [0, 0, 0, 0, 0, 0, 0, 0],
     [0, 0, 0, 0, 0, 0, 0, 0],
     [0, 0, 0, 0, 39, 39, 170, 1],
     [1, 1, 1, 0, 0, 0, 0, 0],
     [0, 0, 0, 0, 47, 47, 47, 47],
     [47, 47, 0, 0, 0, 194, 49, 348],
     [0, 0, 49, 0, 51, 51, 49, 0],
     [0, 0, 51, 51, 49, 0, 0, 206],
     [364, 0, 0, 0, 0, 0, 0, 0],
     [0, 0, 0, 0, 0, 0, 0, 0],
     [0, 352, 197, 551, 51, 51, 0, 0],
     [0, 0, 0, 356, 200, 561, 0, 0],
     [49, 203, 203, 0, 0, 400, 646, 0],
     [0, 0, 0, 0, 0, 0, 0, 0],
     [49, 203, 203, 203, 203, 203, 203, 0],
     [0, 396, 636, 0, 0, 0, 0, 384],
     [606, 0, 0, 0, 376, 586, 0, 380],
     [596, 0, 0, 372, 576, 0, 388, 616],
     [0, 392, 626, 0, 0, 0, 0, 0],
     [0, 0, 0, 0, 0, 0, 0, 0],
     [0, 41, 41, 176, 0, 0, 0, 0],
     [0, 0, 161, 0, 0, 158, 0, 1],
     [1, 1, 1, 1, 1, 1, 1, 0],
     [0, 0, 37, 0, 0, 0, 1, 1],
     [1, 1, 1, 0, 0, 0, 0, 0],
     [817, 817, 852, 0, 0, 39, 316, 1],
     [1, 1, 1, 0, 0, 0, 0, 0],
     [838, 838, 876, 340, 7, 0, 0, 0],
     [0, 412, 412, 661, 0, 0, 7, 0],
     [0, 7, 0, 0, 0, 0, 0, 412],
     [412, 0, 0, 0, 0, 0, 7, 0],
     [0, 0, 0, 0, 0, 0, 0, 0],
     [0, 0, 0, 0, 0, 0, 0, 0],
     [0, 0, 0, 0, 0, 0, 0, 0],
     [0, 0, 0, 0, 0, 0, 0, 0],
     [0, 0, 0, 0, 0, 0, 0, 0],
     [0, 0, 0, 0, 0, 0, 0, 0],
     [0, 0, 0, 0, 0, 0, 0, 0],
     [0, 0, 0, 0, 0, 0, 0, 0],
     [0, 0, 0, 0, 0, 0, 0, 0],
     [0, 0, 0, 0, 0, 0, 0, 0],
     [0, 0, 0, 0, 0, 0, 0, 0],
     [0, 0, 0, 0, 0, 0, 0, 0],
     [0, 0, 0, 0, 0, 0, 0, 0],
     [0, 0, 0, 0, 0, 0, 0, 0],
     [0, 0, 0, 0, 0, 0, 0, 0],
     [0, 0, 0, 0, 0, 0, 0, 0],
     [0, 0, 0, 0, 0, 0, 0, 0],
     [0, 0, 0, 0, 0, 0, 0, 0],
     [0, 0, 0, 0, 0, 0, 0, 0],
     [0, 0, 0, 0, 0, 666, 666, 797],
     [65, 65, 0, 0, 0, 0, 0, 0],
     [0, 0, 0, 0, 0, 0, 0, 0],
     [0, 0, 0, 0, 824, 824, 860, 41],
     [324, 0, 0, 0, 0, 0, 0, 0],
     [0, 0, 0, 0, 0, 0, 0, 0],
     [0, 0, 0, 0, 0, 0, 0, 0],
     [0, 0, 0, 0, 0, 0, 0, 0],
     [0, 0, 0, 0, 0, 0, 0, 0],
     [0, 0, 0, 0, 0, 0, 0, 0],
     [0, 0, 0, 0, 0, 0, 0, 0],
     [0, 0, 0, 0, 0, 0, 0, 0],
     [0, 0, 0, 831, 831, 868, 43, 332],
     [0, 0, 0, 0, 0, 0, 0, 0],
     [0, 0, 0, 0, 0, 0, 0, 0],
     [0, 0, 0, 0, 0, 0, 0, 0],
     [0, 0, 0, 0, 0, 0, 0, 0],
     [0, 0, 0, 0, 0, 0, 0, 0],
     [0, 0, 0, 0, 0, 0, 0, 0],
     [0, 0, 0, 0, 0, 0, 0, 0],
     [0, 0, 0, 0, 0, 0, 0, 0],
     [0, 0, 0, 0, 0, 0, 0, 0],
     [0, 0, 0, 0, 0, 0, 0, 0],
     [0, 0, 0, 0, 0, 0, 0, 0],
     [0, 0, 0, 0, 0, 0, 0, 0],
     [0, 0, 39, 1, 1, 1, 1, 0],
     [0, 0, 0, 0, 0, 0, 0, 0],
     [0, 0, 0, 0, 0, 0, 0, 0],
     [0, 0, 0, 0, 0, 0, 41, 0],
     [0, 0, 0, 0, 0, 161, 0, 0],
     [0, 0, 0, 0, 209, 0, 0, 352]]"

definition smp_trans_actions_7 :: "int list list" where
  "smp_trans_actions_7 =
    [[197, 556, 551, 51, 51, 0, 0, 0],
     [0, 0, 59, 1, 0, 0, 356, 200],
     [566, 561, 0, 0, 49, 203, 203, 1],
     [0, 0, 400, 651, 646, 0, 0, 55],
     [221, 218, 0, 0, 0, 0, 0, 0],
     [0, 0, 49, 203, 203, 203, 203, 203],
     [203, 1, 0, 0, 396, 641, 636, 0],
     [0, 53, 215, 212, 0, 0, 0, 384],
     [611, 606, 0, 0, 0, 376, 591, 586],
     [0, 380, 601, 596, 0, 0, 372, 581],
     [576, 0, 388, 621, 616, 0, 392, 631],
     [626, 0, 0, 0, 0, 0, 0, 0],
     [0, 0, 0, 0, 0, 0, 0, 0],
     [0, 0, 0, 41, 41, 179, 176, 0],
     [0, 0, 0, 0, 0, 0, 0, 0],
     [0, 0, 0, 0, 0, 0, 0, 0],
     [0, 0, 0, 0, 0, 0, 0, 0],
     [0, 0, 0, 0, 0, 0, 0, 0],
     [0, 0, 0, 0, 0, 0, 0, 0],
     [0, 0, 0, 0, 0, 0, 0, 0],
     [0, 0, 0, 0, 0, 0, 0, 0],
     [0, 0, 0, 0, 0, 0, 0, 0],
     [0, 43, 43, 185, 182, 0, 0, 0],
     [0, 0, 0, 0, 0, 0, 0, 0],
     [0, 0, 0, 0, 0, 0, 0, 0],
     [0, 0, 0, 0, 0, 0, 0, 0],
     [0, 0, 0, 0, 0, 0, 0, 0],
     [0, 0, 0, 0, 0, 0, 0, 0],
     [0, 0, 0, 0, 0, 0, 0, 0],
     [0, 0, 0, 0, 0, 0, 0, 0],
     [0, 0, 0, 0, 0, 0, 0, 0],
     [0, 0, 0, 0, 0, 0, 0, 0],
     [0, 0, 0, 0, 0, 0, 0, 0],
     [0, 0, 0, 0, 0, 0, 0, 0],
     [0, 0, 0, 0, 0, 0, 0, 39],
     [39, 170, 1, 1, 1, 1, 0, 0],
     [0, 0, 0, 0, 0, 0, 0, 47],
     [47, 47, 47, 47, 47, 0, 0, 0],
     [194, 49, 348, 0, 0, 49, 0, 51],
     [51, 49, 0, 0, 0, 51, 51, 49],
     [0, 0, 206, 364, 0, 0, 0, 0],
     [0, 0, 0, 0, 0, 0, 0, 0],
     [0, 0, 0, 0, 352, 197, 551, 51],
     [51, 0, 0, 0, 0, 0, 356, 200],
     [561, 0, 0, 49, 203, 203, 0, 0],
     [400, 646, 0, 0, 0, 0, 0, 0],
     [0, 0, 0, 49, 203, 203, 203, 203],
     [203, 203, 0, 0, 396, 636, 0, 0],
     [0, 0, 384, 606, 0, 0, 0, 376],
     [586, 0, 380, 596, 0, 0, 372, 576],
     [0, 388, 616, 0, 392, 626, 0, 0],
     [0, 0, 0, 0, 0, 0, 0, 0],
     [0, 0, 0, 0, 41, 41, 176, 0],
     [0, 0, 0, 0, 0, 161, 0, 0],
     [0, 0, 0, 0, 0, 0, 0, 0],
     [0, 92, 92, 0, 0, 0, 101, 0],
     [0, 35, 35, 0, 0, 0, 1, 1],
     [1, 1, 1, 1, 1, 1, 1, 1],
     [1, 1, 0, 0, 0, 288, 0, 0],
     [0, 466, 0, 0, 481, 0, 0, 0],
     [0, 0, 471, 0, 0, 0, 0, 491],
     [0, 0, 0, 461, 0, 0, 0, 0],
     [0, 0, 511, 0, 0, 0, 0, 0],
     [521, 0, 0, 0, 0, 0, 0, 501],
     [0, 0, 0, 0, 0, 476, 0, 0],
     [0, 0, 0, 0, 0, 526, 0, 531],
     [0, 536, 0, 0, 0, 0, 0, 486],
     [0, 0, 0, 0, 0, 506, 0, 0],
     [0, 0, 0, 541, 0, 0, 0, 0],
     [0, 0, 0, 516, 0, 0, 0, 0],
     [0, 496, 7, 0, 0, 0, 0, 0],
     [0, 0, 0, 0, 0, 5, 104, 0],
     [0, 0, 0, 0, 0, 0, 0, 0],
     [0, 0, 0, 0, 0, 0, 0, 0],
     [0, 0, 0, 0, 0, 0, 0, 0],
     [0, 0, 0, 0, 0, 0, 0, 0],
     [0, 0, 0, 0, 0, 0, 0, 0],
     [0, 0, 0, 0, 0, 0, 0, 0],
     [0, 0, 0, 0, 0, 0, 0, 0],
     [0, 0, 0, 0, 0, 0, 0, 0],
     [0, 0, 0, 0, 0, 0, 0, 0],
     [0, 0, 0, 0, 0, 0, 0, 0],
     [0, 0, 0, 0, 0, 0, 0, 0],
     [0, 0, 0, 0, 0, 0, 0, 0],
     [0, 0, 0, 0, 0, 0, 0, 0],
     [0, 0, 0, 0, 0, 0, 0, 0],
     [0, 0, 0, 0, 0, 0, 0, 0],
     [0, 0, 0, 0, 0, 0, 0, 0],
     [0, 0, 0, 0, 0, 0, 0, 0],
     [0, 0, 0, 0, 0, 0, 0, 0],
     [0, 0, 0, 0, 0, 0, 0, 0],
     [0, 0, 0, 0, 0, 0, 0, 0],
     [0, 0, 0, 0, 0, 0, 0, 0],
     [0, 0, 0, 0, 0, 0, 0, 0],
     [0, 0, 0, 0, 0, 0, 0, 0],
     [0, 0, 0, 0, 0, 0, 0, 0],
     [0, 0, 0, 0, 0, 0, 0, 0],
     [0, 0, 0, 0, 0, 0, 0, 0],
     [0, 0, 0, 0, 0, 0, 0, 0],
     [0, 0, 0, 0, 0, 0, 0, 0],
     [0, 0, 0, 0, 0, 0, 0, 0],
     [0, 0, 0, 0, 0, 0, 0, 0],
     [0, 0, 0, 0, 0, 0, 0, 0],
     [0, 0, 0, 0, 0, 0, 0, 0],
     [0, 0, 0, 0, 0, 0, 0, 0],
     [0, 0, 0, 0, 0, 0, 0, 0],
     [0, 0, 0, 0, 0, 0, 0, 0],
     [0, 0, 0, 0, 0, 0, 0, 0],
     [0, 0, 0, 0, 0, 0, 0, 0],
     [0, 0, 0, 0, 0, 0, 0, 0],
     [0, 0, 0, 0, 0, 0, 0, 0],
     [0, 0, 0, 0, 0, 0, 0, 0],
     [0, 0, 0, 0, 0, 0, 0, 0],
     [0, 0, 0, 0, 0, 0, 0, 0],
     [0, 0, 0, 0, 0, 0, 0, 0],
     [0, 0, 0, 0, 0, 0, 0, 0],
     [0, 0, 0, 0, 0, 0, 0, 0],
     [0, 0, 0, 0, 0, 0, 0, 0],
     [0, 0, 0, 0, 0, 0, 0, 0],
     [0, 0, 0, 0, 0, 0, 0, 0],
     [0, 0, 0, 0, 0, 0, 0, 0],
     [0, 0, 0, 0, 0, 0, 0, 0],
     [0, 0, 0, 0, 0, 0, 0, 0],
     [0, 0, 0, 0, 0, 0, 0, 0],
     [158, 0, 1, 1, 1, 1, 1, 1],
     [1, 1, 0, 0, 0, 37, 0, 0],
     [0, 1, 1, 1, 1, 1, 0, 0],
     [0, 0, 0, 173, 0, 0, 39, 39],
     [170, 1, 1, 1, 1, 0, 0, 0],
     [0, 0, 191, 45, 188, 47, 47, 47],
     [47, 47, 360, 0, 0, 194, 49, 348],
     [0, 51, 51, 49, 404, 0, 0, 206],
     [364, 0, 0, 0, 0, 0, 209, 0],
     [0, 0, 0, 556, 352, 197, 551, 51],
     [51, 0, 0, 0, 0, 0, 1, 0],
     [0, 566, 356, 200, 561, 0, 0, 49],
     [203, 203, 1, 651, 0, 0, 400, 646],
     [0, 221, 0, 55, 218, 0, 0, 0],
     [0, 0, 0, 0, 0, 49, 203, 203],
     [203, 203, 203, 203, 1, 641, 0, 0],
     [396, 636, 0, 215, 0, 53, 212, 0],
     [0, 0, 611, 384, 606, 0, 0, 0],
     [591, 376, 586, 0, 601, 380, 596, 0],
     [0, 581, 372, 576, 0, 621, 388, 616],
     [0, 631, 392, 626, 0, 0, 0, 0],
     [0, 0, 0, 0, 0, 0, 0, 0],
     [0, 0, 0, 0, 0, 0, 179, 41],
     [41, 176, 0, 0, 0, 0, 0, 0],
     [0, 0, 0, 0, 0, 0, 0, 0],
     [0, 0, 0, 0, 0, 0, 0, 0]]"

definition smp_trans_actions_8 :: "int list list" where
  "smp_trans_actions_8 =
    [[0, 0, 0, 0, 0, 0, 0, 0],
     [0, 0, 0, 0, 0, 0, 0, 0],
     [0, 0, 0, 0, 0, 0, 0, 0],
     [0, 0, 0, 0, 0, 0, 0, 0],
     [0, 0, 0, 0, 0, 0, 0, 0],
     [0, 0, 0, 0, 185, 43, 43, 182],
     [0, 0, 0, 0, 0, 0, 0, 0],
     [0, 0, 0, 0, 0, 0, 0, 0],
     [0, 0, 0, 0, 0, 0, 0, 0],
     [0, 0, 0, 0, 0, 0, 0, 0],
     [0, 0, 0, 0, 0, 0, 0, 0],
     [0, 0, 0, 0, 0, 0, 0, 0],
     [0, 0, 0, 0, 0, 0, 0, 0],
     [0, 0, 0, 0, 0, 0, 0, 0],
     [0, 0, 0, 0, 0, 0, 0, 0],
     [0, 0, 0, 0, 0, 0, 0, 0],
     [0, 0, 0, 0, 0, 0, 0, 0],
     [0, 0, 0, 0, 0, 0, 0, 0],
     [0, 0, 39, 39, 170, 1, 1, 1],
     [1, 0, 0, 0, 0, 0, 0, 0],
     [0, 0, 47, 47, 47, 47, 47, 47],
     [0, 0, 0, 194, 49, 348, 0, 0],
     [49, 0, 51, 51, 49, 0, 0, 0],
     [51, 51, 49, 0, 0, 206, 364, 0],
     [0, 0, 0, 0, 0, 0, 0, 0],
     [0, 0, 0, 0, 0, 0, 0, 352],
     [197, 551, 51, 51, 0, 0, 0, 0],
     [0, 356, 200, 561, 0, 0, 49, 203],
     [203, 0, 0, 400, 646, 0, 0, 0],
     [0, 0, 0, 0, 0, 0, 49, 203],
     [203, 203, 203, 203, 203, 0, 0, 396],
     [636, 0, 0, 0, 0, 384, 606, 0],
     [0, 0, 376, 586, 0, 380, 596, 0],
     [0, 372, 576, 0, 388, 616, 0, 392],
     [626, 0, 0, 0, 0, 0, 0, 0],
     [0, 0, 0, 0, 0, 0, 0, 41],
     [41, 176, 0, 0, 0, 0, 0, 0],
     [161, 0, 0, 0, 308, 308, 308, 167],
     [0, 37, 47, 47, 0, 194, 49, 51],
     [51, 0, 0, 206, 0, 0, 0, 0],
     [0, 0, 0, 0, 0, 0, 0, 0],
     [0, 49, 203, 203, 203, 0, 0, 571],
     [368, 0, 0, 0, 0, 0, 0, 0],
     [0, 0, 0, 0, 695, 0, 0, 713],
     [0, 0, 0, 0, 0, 701, 0, 0],
     [0, 0, 0, 0, 0, 0, 77, 0],
     [1, 0, 0, 13, 1, 83, 0, 15],
     [0, 0, 0, 0, 725, 0, 0, 0],
     [689, 0, 0, 0, 0, 0, 0, 749],
     [0, 0, 0, 0, 0, 761, 0, 0],
     [0, 0, 0, 0, 737, 0, 0, 0],
     [0, 0, 707, 0, 0, 0, 0, 0],
     [0, 0, 767, 0, 773, 0, 779, 0],
     [0, 0, 0, 0, 719, 0, 0, 0],
     [0, 0, 743, 0, 0, 0, 0, 0],
     [785, 0, 0, 0, 0, 0, 0, 0],
     [755, 0, 0, 0, 0, 0, 731]]"

definition smp_trans_actions :: "int list" where
  "smp_trans_actions =
     concat smp_trans_actions_1 @ concat smp_trans_actions_2 @ concat smp_trans_actions_3 @
     concat smp_trans_actions_4 @ concat smp_trans_actions_5 @ concat smp_trans_actions_6 @
     concat smp_trans_actions_7 @ concat smp_trans_actions_8"

text \<open>
  The actions of the transitions by what they do for the kind of the message: nothing, say what it
  is, say that it is a keepalive, be at the end, or anything else; by where they are in \<open>actions\<close>.
\<close>

datatype acts_kind = Bad | Quiet | Begins | Keepalive | Done | Goes

definition smp_kind_1 :: "int \<Rightarrow> acts_kind" where
  "smp_kind_1 a =
     (if a = 0 then Quiet
      else if a = 1 then Quiet
      else if a = 3 then Goes
      else if a = 5 then Goes
      else if a = 7 then Goes
      else if a = 9 then Goes
      else if a = 11 then Goes
      else if a = 13 then Goes
      else if a = 15 then Goes
      else if a = 17 then Goes
      else if a = 19 then Goes
      else if a = 21 then Goes
      else if a = 23 then Goes
      else if a = 25 then Goes
      else if a = 27 then Goes
      else if a = 29 then Goes
      else Bad)"

definition smp_kind_2 :: "int \<Rightarrow> acts_kind" where
  "smp_kind_2 a =
     (if a = 31 then Goes
      else if a = 33 then Goes
      else if a = 35 then Goes
      else if a = 37 then Goes
      else if a = 39 then Goes
      else if a = 41 then Goes
      else if a = 43 then Goes
      else if a = 45 then Goes
      else if a = 47 then Goes
      else if a = 49 then Goes
      else if a = 51 then Goes
      else if a = 53 then Goes
      else if a = 55 then Goes
      else if a = 57 then Goes
      else if a = 59 then Goes
      else if a = 61 then Goes
      else Bad)"

definition smp_kind_3 :: "int \<Rightarrow> acts_kind" where
  "smp_kind_3 a =
     (if a = 63 then Goes
      else if a = 65 then Goes
      else if a = 67 then Goes
      else if a = 69 then Goes
      else if a = 71 then Goes
      else if a = 73 then Goes
      else if a = 75 then Done
      else if a = 77 then Begins
      else if a = 80 then Keepalive
      else if a = 83 then Goes
      else if a = 86 then Goes
      else if a = 89 then Goes
      else if a = 92 then Goes
      else if a = 95 then Goes
      else if a = 98 then Goes
      else if a = 101 then Goes
      else Bad)"

definition smp_kind_4 :: "int \<Rightarrow> acts_kind" where
  "smp_kind_4 a =
     (if a = 104 then Goes
      else if a = 107 then Goes
      else if a = 110 then Goes
      else if a = 113 then Goes
      else if a = 116 then Goes
      else if a = 119 then Goes
      else if a = 122 then Goes
      else if a = 125 then Goes
      else if a = 128 then Goes
      else if a = 131 then Goes
      else if a = 134 then Goes
      else if a = 137 then Goes
      else if a = 140 then Goes
      else if a = 143 then Goes
      else if a = 146 then Goes
      else if a = 149 then Goes
      else Bad)"

definition smp_kind_5 :: "int \<Rightarrow> acts_kind" where
  "smp_kind_5 a =
     (if a = 152 then Goes
      else if a = 155 then Goes
      else if a = 158 then Goes
      else if a = 161 then Goes
      else if a = 164 then Goes
      else if a = 167 then Goes
      else if a = 170 then Goes
      else if a = 173 then Goes
      else if a = 176 then Goes
      else if a = 179 then Goes
      else if a = 182 then Goes
      else if a = 185 then Goes
      else if a = 188 then Goes
      else if a = 191 then Goes
      else if a = 194 then Goes
      else if a = 197 then Goes
      else Bad)"

definition smp_kind_6 :: "int \<Rightarrow> acts_kind" where
  "smp_kind_6 a =
     (if a = 200 then Goes
      else if a = 203 then Goes
      else if a = 206 then Goes
      else if a = 209 then Goes
      else if a = 212 then Goes
      else if a = 215 then Goes
      else if a = 218 then Goes
      else if a = 221 then Goes
      else if a = 224 then Goes
      else if a = 227 then Goes
      else if a = 230 then Goes
      else if a = 233 then Goes
      else if a = 236 then Goes
      else if a = 239 then Goes
      else if a = 242 then Goes
      else if a = 245 then Goes
      else Bad)"

definition smp_kind_7 :: "int \<Rightarrow> acts_kind" where
  "smp_kind_7 a =
     (if a = 248 then Goes
      else if a = 252 then Goes
      else if a = 256 then Goes
      else if a = 260 then Goes
      else if a = 264 then Goes
      else if a = 268 then Goes
      else if a = 272 then Goes
      else if a = 276 then Goes
      else if a = 280 then Goes
      else if a = 284 then Goes
      else if a = 288 then Goes
      else if a = 292 then Goes
      else if a = 296 then Goes
      else if a = 300 then Goes
      else if a = 304 then Goes
      else if a = 308 then Goes
      else Bad)"

definition smp_kind_8 :: "int \<Rightarrow> acts_kind" where
  "smp_kind_8 a =
     (if a = 312 then Goes
      else if a = 316 then Goes
      else if a = 320 then Goes
      else if a = 324 then Goes
      else if a = 328 then Goes
      else if a = 332 then Goes
      else if a = 336 then Goes
      else if a = 340 then Goes
      else if a = 344 then Goes
      else if a = 348 then Goes
      else if a = 352 then Goes
      else if a = 356 then Goes
      else if a = 360 then Goes
      else if a = 364 then Goes
      else if a = 368 then Goes
      else if a = 372 then Goes
      else Bad)"

definition smp_kind_9 :: "int \<Rightarrow> acts_kind" where
  "smp_kind_9 a =
     (if a = 376 then Goes
      else if a = 380 then Goes
      else if a = 384 then Goes
      else if a = 388 then Goes
      else if a = 392 then Goes
      else if a = 396 then Goes
      else if a = 400 then Goes
      else if a = 404 then Goes
      else if a = 408 then Goes
      else if a = 412 then Goes
      else if a = 416 then Goes
      else if a = 421 then Goes
      else if a = 426 then Goes
      else if a = 431 then Goes
      else if a = 436 then Goes
      else if a = 441 then Goes
      else Bad)"

definition smp_kind_10 :: "int \<Rightarrow> acts_kind" where
  "smp_kind_10 a =
     (if a = 446 then Goes
      else if a = 451 then Goes
      else if a = 456 then Goes
      else if a = 461 then Goes
      else if a = 466 then Goes
      else if a = 471 then Goes
      else if a = 476 then Goes
      else if a = 481 then Goes
      else if a = 486 then Goes
      else if a = 491 then Goes
      else if a = 496 then Goes
      else if a = 501 then Goes
      else if a = 506 then Goes
      else if a = 511 then Goes
      else if a = 516 then Goes
      else if a = 521 then Goes
      else Bad)"

definition smp_kind_11 :: "int \<Rightarrow> acts_kind" where
  "smp_kind_11 a =
     (if a = 526 then Goes
      else if a = 531 then Goes
      else if a = 536 then Goes
      else if a = 541 then Goes
      else if a = 546 then Begins
      else if a = 551 then Goes
      else if a = 556 then Goes
      else if a = 561 then Goes
      else if a = 566 then Goes
      else if a = 571 then Goes
      else if a = 576 then Goes
      else if a = 581 then Goes
      else if a = 586 then Goes
      else if a = 591 then Goes
      else if a = 596 then Goes
      else if a = 601 then Goes
      else Bad)"

definition smp_kind_12 :: "int \<Rightarrow> acts_kind" where
  "smp_kind_12 a =
     (if a = 606 then Goes
      else if a = 611 then Goes
      else if a = 616 then Goes
      else if a = 621 then Goes
      else if a = 626 then Goes
      else if a = 631 then Goes
      else if a = 636 then Goes
      else if a = 641 then Goes
      else if a = 646 then Goes
      else if a = 651 then Goes
      else if a = 656 then Goes
      else if a = 661 then Goes
      else if a = 666 then Goes
      else if a = 671 then Goes
      else if a = 677 then Goes
      else if a = 683 then Goes
      else Bad)"

definition smp_kind_13 :: "int \<Rightarrow> acts_kind" where
  "smp_kind_13 a =
     (if a = 689 then Begins
      else if a = 695 then Begins
      else if a = 701 then Begins
      else if a = 707 then Begins
      else if a = 713 then Begins
      else if a = 719 then Begins
      else if a = 725 then Begins
      else if a = 731 then Begins
      else if a = 737 then Begins
      else if a = 743 then Begins
      else if a = 749 then Begins
      else if a = 755 then Begins
      else if a = 761 then Begins
      else if a = 767 then Begins
      else if a = 773 then Begins
      else if a = 779 then Begins
      else Bad)"

definition smp_kind_14 :: "int \<Rightarrow> acts_kind" where
  "smp_kind_14 a =
     (if a = 785 then Begins
      else if a = 791 then Goes
      else if a = 797 then Goes
      else if a = 803 then Goes
      else if a = 810 then Goes
      else if a = 817 then Goes
      else if a = 824 then Goes
      else if a = 831 then Goes
      else if a = 838 then Goes
      else if a = 845 then Goes
      else if a = 852 then Goes
      else if a = 860 then Goes
      else if a = 868 then Goes
      else if a = 876 then Goes
      else Bad)"

definition smp_kind :: "int \<Rightarrow> acts_kind" where
  "smp_kind a =
     (if a < 312
      then (if a < 104
           then (if a < 31
                then smp_kind_1 a
                else (if a < 63
                     then smp_kind_2 a
                     else smp_kind_3 a))
           else (if a < 200
                then (if a < 152
                     then smp_kind_4 a
                     else smp_kind_5 a)
                else (if a < 248
                     then smp_kind_6 a
                     else smp_kind_7 a)))
      else (if a < 526
           then (if a < 376
                then smp_kind_8 a
                else (if a < 446
                     then smp_kind_9 a
                     else smp_kind_10 a))
           else (if a < 689
                then (if a < 606
                     then smp_kind_11 a
                     else smp_kind_12 a)
                else (if a < 785
                     then smp_kind_13 a
                     else smp_kind_14 a))))"

definition smp_goes :: "acts_kind \<Rightarrow> int \<Rightarrow> int \<Rightarrow> bool" where
  "smp_goes k t q \<longleftrightarrow>
     k \<noteq> Bad \<and> (k = Keepalive \<or> k = Done \<longrightarrow> q = 7687) \<and>
     (smp_early_trans t \<longrightarrow>
        (if k = Quiet then q = 0 \<or> smp_early q
         else (k = Begins \<or> k = Keepalive) \<and> q \<noteq> 0 \<and> \<not> smp_early q)) \<and>
     (smp_late_trans t \<longrightarrow> k \<noteq> Begins \<and> k \<noteq> Keepalive \<and> \<not> smp_early q)"

definition smp_trans :: "int \<Rightarrow> int \<Rightarrow> int \<Rightarrow> bool" where
  "smp_trans t q a \<longleftrightarrow> 0 \<le> q \<and> q < 7688 \<and> smp_goes (smp_kind a) t q"

lemmas smp_trans_defs = smp_trans_def smp_goes_def smp_early_trans_def smp_late_trans_def smp_early_def
  smp_kind_def acts_kind.distinct if_True if_False not_False_eq_True
  smp_kind_1_def smp_kind_2_def smp_kind_3_def smp_kind_4_def smp_kind_5_def smp_kind_6_def
  smp_kind_7_def smp_kind_8_def smp_kind_9_def smp_kind_10_def smp_kind_11_def smp_kind_12_def
  smp_kind_13_def smp_kind_14_def

lemma smp_trans_targs_1_trans: "all2 smp_trans 0 1200 (concat smp_trans_targs_1) (concat smp_trans_actions_1)"
  by (simp only: smp_trans_targs_1_def smp_trans_actions_1_def smp_trans_defs row_arith)

lemma smp_trans_targs_2_trans: "all2 smp_trans 1200 2400 (concat smp_trans_targs_2) (concat smp_trans_actions_2)"
  by (simp only: smp_trans_targs_2_def smp_trans_actions_2_def smp_trans_defs row_arith)

lemma smp_trans_targs_3_trans: "all2 smp_trans 2400 3600 (concat smp_trans_targs_3) (concat smp_trans_actions_3)"
  by (simp only: smp_trans_targs_3_def smp_trans_actions_3_def smp_trans_defs row_arith)

lemma smp_trans_targs_4_trans: "all2 smp_trans 3600 4800 (concat smp_trans_targs_4) (concat smp_trans_actions_4)"
  by (simp only: smp_trans_targs_4_def smp_trans_actions_4_def smp_trans_defs row_arith)

lemma smp_trans_targs_5_trans: "all2 smp_trans 4800 6000 (concat smp_trans_targs_5) (concat smp_trans_actions_5)"
  by (simp only: smp_trans_targs_5_def smp_trans_actions_5_def smp_trans_defs row_arith)

lemma smp_trans_targs_6_trans: "all2 smp_trans 6000 7200 (concat smp_trans_targs_6) (concat smp_trans_actions_6)"
  by (simp only: smp_trans_targs_6_def smp_trans_actions_6_def smp_trans_defs row_arith)

lemma smp_trans_targs_7_trans: "all2 smp_trans 7200 8400 (concat smp_trans_targs_7) (concat smp_trans_actions_7)"
  by (simp only: smp_trans_targs_7_def smp_trans_actions_7_def smp_trans_defs row_arith)

lemma smp_trans_targs_8_trans: "all2 smp_trans 8400 8855 (concat smp_trans_targs_8) (concat smp_trans_actions_8)"
  by (simp only: smp_trans_targs_8_def smp_trans_actions_8_def smp_trans_defs row_arith)

lemma smp_trans_targs_trans: "all2 smp_trans 0 8855 smp_trans_targs smp_trans_actions"
  unfolding smp_trans_targs_def smp_trans_actions_def
  by (intro all2_append)
    (rule
      smp_trans_targs_1_trans smp_trans_targs_2_trans smp_trans_targs_3_trans
      smp_trans_targs_4_trans smp_trans_targs_5_trans smp_trans_targs_6_trans
      smp_trans_targs_7_trans smp_trans_targs_8_trans)+

text \<open>The actions themselves.\<close>

definition smp_sequences :: "(int \<times> int list) list" where
  "smp_sequences =
    [(0, []),
     (1, [3]),
     (3, [5]),
     (5, [6]),
     (7, [7]),
     (9, [8]),
     (11, [28]),
     (13, [29]),
     (15, [30]),
     (17, [31]),
     (19, [32]),
     (21, [33]),
     (23, [37]),
     (25, [39]),
     (27, [40]),
     (29, [41]),
     (31, [42]),
     (33, [43]),
     (35, [49]),
     (37, [59]),
     (39, [60]),
     (41, [61]),
     (43, [62]),
     (45, [63]),
     (47, [64]),
     (49, [65]),
     (51, [66]),
     (53, [77]),
     (55, [80]),
     (57, [81]),
     (59, [84]),
     (61, [93]),
     (63, [94]),
     (65, [102]),
     (67, [104]),
     (69, [105]),
     (71, [106]),
     (73, [107]),
     (75, [108]),
     (77, [1, 28]),
     (80, [2, 108]),
     (83, [3, 30]),
     (86, [5, 35]),
     (89, [5, 46]),
     (92, [5, 48]),
     (95, [5, 50]),
     (98, [5, 52]),
     (101, [6, 3]),
     (104, [6, 7]),
     (107, [6, 89]),
     (110, [6, 92]),
     (113, [6, 97]),
     (116, [6, 100]),
     (119, [8, 4]),
     (122, [32, 45]),
     (125, [34, 45]),
     (128, [36, 6]),
     (131, [37, 44]),
     (134, [38, 44]),
     (137, [39, 7]),
     (140, [41, 7]),
     (143, [42, 7]),
     (146, [43, 7]),
     (149, [47, 7]),
     (152, [51, 7]),
     (155, [53, 7]),
     (158, [54, 58]),
     (161, [55, 58]),
     (164, [57, 58]),
     (167, [59, 84]),
     (170, [60, 3]),
     (173, [60, 84]),
     (176, [61, 3]),
     (179, [61, 84]),
     (182, [62, 3]),
     (185, [62, 84]),
     (188, [63, 3]),
     (191, [63, 84]),
     (194, [65, 68]),
     (197, [65, 78]),
     (200, [65, 79]),
     (203, [66, 3]),
     (206, [67, 68]),
     (209, [69, 84]),
     (212, [77, 3]),
     (215, [77, 84]),
     (218, [80, 3]),
     (221, [80, 84]),
     (224, [81, 7]),
     (227, [83, 3]),
     (230, [84, 7]),
     (233, [93, 7]),
     (236, [94, 7]),
     (239, [105, 7]),
     (242, [106, 7]),
     (245, [107, 7]),
     (248, [5, 87, 88]),
     (252, [5, 90, 91]),
     (256, [5, 95, 96]),
     (260, [5, 99, 98]),
     (264, [6, 89, 3]),
     (268, [6, 92, 3]),
     (272, [6, 97, 3]),
     (276, [6, 100, 3]),
     (280, [6, 100, 7]),
     (284, [8, 36, 6]),
     (288, [26, 27, 7]),
     (292, [32, 45, 7]),
     (296, [34, 45, 7]),
     (300, [37, 44, 7]),
     (304, [38, 44, 7]),
     (308, [56, 58, 3]),
     (312, [59, 84, 7]),
     (316, [60, 84, 3]),
     (320, [60, 84, 7]),
     (324, [61, 84, 3]),
     (328, [61, 84, 7]),
     (332, [62, 84, 3]),
     (336, [62, 84, 7]),
     (340, [63, 84, 3]),
     (344, [63, 84, 7]),
     (348, [65, 68, 3]),
     (352, [65, 68, 78]),
     (356, [65, 68, 79]),
     (360, [65, 68, 84]),
     (364, [67, 68, 3]),
     (368, [67, 68, 70]),
     (372, [67, 68, 71]),
     (376, [67, 68, 72]),
     (380, [67, 68, 73]),
     (384, [67, 68, 74]),
     (388, [67, 68, 75]),
     (392, [67, 68, 76]),
     (396, [67, 68, 77]),
     (400, [67, 68, 80]),
     (404, [67, 68, 84]),
     (408, [86, 83, 3]),
     (412, [101, 103, 7]),
     (416, [3, 101, 103, 7]),
     (421, [6, 89, 3, 82]),
     (426, [6, 89, 3, 83]),
     (431, [6, 92, 3, 82]),
     (436, [6, 92, 3, 83]),
     (441, [6, 97, 3, 82]),
     (446, [6, 100, 3, 82]),
     (451, [6, 100, 3, 83]),
     (456, [8, 99, 6, 100]),
     (461, [9, 26, 27, 7]),
     (466, [10, 26, 27, 7]),
     (471, [11, 26, 27, 7]),
     (476, [12, 26, 27, 7]),
     (481, [13, 26, 27, 7]),
     (486, [14, 26, 27, 7]),
     (491, [15, 26, 27, 7]),
     (496, [16, 26, 27, 7]),
     (501, [17, 26, 27, 7]),
     (506, [18, 26, 27, 7]),
     (511, [19, 26, 27, 7]),
     (516, [20, 26, 27, 7]),
     (521, [21, 26, 27, 7]),
     (526, [22, 26, 27, 7]),
     (531, [23, 26, 27, 7]),
     (536, [24, 26, 27, 7]),
     (541, [25, 26, 27, 7]),
     (546, [26, 0, 27, 85]),
     (551, [65, 68, 78, 3]),
     (556, [65, 68, 78, 84]),
     (561, [65, 68, 79, 3]),
     (566, [65, 68, 79, 84]),
     (571, [67, 68, 70, 84]),
     (576, [67, 68, 71, 3]),
     (581, [67, 68, 71, 84]),
     (586, [67, 68, 72, 3]),
     (591, [67, 68, 72, 84]),
     (596, [67, 68, 73, 3]),
     (601, [67, 68, 73, 84]),
     (606, [67, 68, 74, 3]),
     (611, [67, 68, 74, 84]),
     (616, [67, 68, 75, 3]),
     (621, [67, 68, 75, 84]),
     (626, [67, 68, 76, 3]),
     (631, [67, 68, 76, 84]),
     (636, [67, 68, 77, 3]),
     (641, [67, 68, 77, 84]),
     (646, [67, 68, 80, 3]),
     (651, [67, 68, 80, 84]),
     (656, [96, 8, 6, 97]),
     (661, [101, 103, 7, 104]),
     (666, [102, 101, 103, 7]),
     (671, [3, 101, 103, 7, 104]),
     (677, [8, 99, 6, 100, 3]),
     (683, [8, 99, 6, 100, 7]),
     (689, [9, 26, 0, 27, 85]),
     (695, [10, 26, 0, 27, 85]),
     (701, [11, 26, 0, 27, 85]),
     (707, [12, 26, 0, 27, 85]),
     (713, [13, 26, 0, 27, 85]),
     (719, [14, 26, 0, 27, 85]),
     (725, [15, 26, 0, 27, 85]),
     (731, [16, 26, 0, 27, 85]),
     (737, [17, 26, 0, 27, 85]),
     (743, [18, 26, 0, 27, 85]),
     (749, [19, 26, 0, 27, 85]),
     (755, [20, 26, 0, 27, 85]),
     (761, [21, 26, 0, 27, 85]),
     (767, [22, 26, 0, 27, 85]),
     (773, [23, 26, 0, 27, 85]),
     (779, [24, 26, 0, 27, 85]),
     (785, [25, 26, 0, 27, 85]),
     (791, [96, 8, 6, 97, 3]),
     (797, [102, 101, 103, 7, 104]),
     (803, [8, 99, 6, 100, 3, 82]),
     (810, [8, 99, 6, 100, 3, 83]),
     (817, [60, 84, 3, 101, 103, 7]),
     (824, [61, 84, 3, 101, 103, 7]),
     (831, [62, 84, 3, 101, 103, 7]),
     (838, [63, 84, 3, 101, 103, 7]),
     (845, [96, 8, 6, 97, 3, 82]),
     (852, [60, 84, 3, 101, 103, 7, 104]),
     (860, [61, 84, 3, 101, 103, 7, 104]),
     (868, [62, 84, 3, 101, 103, 7, 104]),
     (876, [63, 84, 3, 101, 103, 7, 104])]"

lemma smp_sequences_layout: "layout smp_sequences = smp_actions"
  by (simp only: smp_actions_def smp_actions_1_def smp_sequences_def row_arith)

lemma smp_sequences_laid_out: "laid_out 0 smp_sequences"
  by (simp only: smp_sequences_def row_arith)

lemma smp_kind_1_starts: "smp_kind_1 a \<noteq> Bad \<Longrightarrow> a \<in> set [0, 1, 3, 5, 7, 9, 11, 13, 15, 17, 19, 21, 23, 25, 27, 29]"
  by (simp add: smp_kind_1_def split: if_splits)

lemma smp_kind_2_starts: "smp_kind_2 a \<noteq> Bad \<Longrightarrow> a \<in> set [31, 33, 35, 37, 39, 41, 43, 45, 47, 49, 51, 53, 55, 57, 59, 61]"
  by (simp add: smp_kind_2_def split: if_splits)

lemma smp_kind_3_starts: "smp_kind_3 a \<noteq> Bad \<Longrightarrow> a \<in> set [63, 65, 67, 69, 71, 73, 75, 77, 80, 83, 86, 89, 92, 95, 98, 101]"
  by (simp add: smp_kind_3_def split: if_splits)

lemma smp_kind_4_starts: "smp_kind_4 a \<noteq> Bad \<Longrightarrow> a \<in> set [104, 107, 110, 113, 116, 119, 122, 125, 128, 131, 134, 137, 140, 143, 146, 149]"
  by (simp add: smp_kind_4_def split: if_splits)

lemma smp_kind_5_starts: "smp_kind_5 a \<noteq> Bad \<Longrightarrow> a \<in> set [152, 155, 158, 161, 164, 167, 170, 173, 176, 179, 182, 185, 188, 191, 194, 197]"
  by (simp add: smp_kind_5_def split: if_splits)

lemma smp_kind_6_starts: "smp_kind_6 a \<noteq> Bad \<Longrightarrow> a \<in> set [200, 203, 206, 209, 212, 215, 218, 221, 224, 227, 230, 233, 236, 239, 242, 245]"
  by (simp add: smp_kind_6_def split: if_splits)

lemma smp_kind_7_starts: "smp_kind_7 a \<noteq> Bad \<Longrightarrow> a \<in> set [248, 252, 256, 260, 264, 268, 272, 276, 280, 284, 288, 292, 296, 300, 304, 308]"
  by (simp add: smp_kind_7_def split: if_splits)

lemma smp_kind_8_starts: "smp_kind_8 a \<noteq> Bad \<Longrightarrow> a \<in> set [312, 316, 320, 324, 328, 332, 336, 340, 344, 348, 352, 356, 360, 364, 368, 372]"
  by (simp add: smp_kind_8_def split: if_splits)

lemma smp_kind_9_starts: "smp_kind_9 a \<noteq> Bad \<Longrightarrow> a \<in> set [376, 380, 384, 388, 392, 396, 400, 404, 408, 412, 416, 421, 426, 431, 436, 441]"
  by (simp add: smp_kind_9_def split: if_splits)

lemma smp_kind_10_starts: "smp_kind_10 a \<noteq> Bad \<Longrightarrow> a \<in> set [446, 451, 456, 461, 466, 471, 476, 481, 486, 491, 496, 501, 506, 511, 516, 521]"
  by (simp add: smp_kind_10_def split: if_splits)

lemma smp_kind_11_starts: "smp_kind_11 a \<noteq> Bad \<Longrightarrow> a \<in> set [526, 531, 536, 541, 546, 551, 556, 561, 566, 571, 576, 581, 586, 591, 596, 601]"
  by (simp add: smp_kind_11_def split: if_splits)

lemma smp_kind_12_starts: "smp_kind_12 a \<noteq> Bad \<Longrightarrow> a \<in> set [606, 611, 616, 621, 626, 631, 636, 641, 646, 651, 656, 661, 666, 671, 677, 683]"
  by (simp add: smp_kind_12_def split: if_splits)

lemma smp_kind_13_starts: "smp_kind_13 a \<noteq> Bad \<Longrightarrow> a \<in> set [689, 695, 701, 707, 713, 719, 725, 731, 737, 743, 749, 755, 761, 767, 773, 779]"
  by (simp add: smp_kind_13_def split: if_splits)

lemma smp_kind_14_starts: "smp_kind_14 a \<noteq> Bad \<Longrightarrow> a \<in> set [785, 791, 797, 803, 810, 817, 824, 831, 838, 845, 852, 860, 868, 876]"
  by (simp add: smp_kind_14_def split: if_splits)

definition smp_starts :: "int list" where
  "smp_starts =
     [0, 1, 3, 5, 7, 9, 11, 13, 15, 17, 19, 21, 23, 25, 27, 29] @
     [31, 33, 35, 37, 39, 41, 43, 45, 47, 49, 51, 53, 55, 57, 59, 61] @
     [63, 65, 67, 69, 71, 73, 75, 77, 80, 83, 86, 89, 92, 95, 98, 101] @
     [104, 107, 110, 113, 116, 119, 122, 125, 128, 131, 134, 137, 140, 143, 146, 149] @
     [152, 155, 158, 161, 164, 167, 170, 173, 176, 179, 182, 185, 188, 191, 194, 197] @
     [200, 203, 206, 209, 212, 215, 218, 221, 224, 227, 230, 233, 236, 239, 242, 245] @
     [248, 252, 256, 260, 264, 268, 272, 276, 280, 284, 288, 292, 296, 300, 304, 308] @
     [312, 316, 320, 324, 328, 332, 336, 340, 344, 348, 352, 356, 360, 364, 368, 372] @
     [376, 380, 384, 388, 392, 396, 400, 404, 408, 412, 416, 421, 426, 431, 436, 441] @
     [446, 451, 456, 461, 466, 471, 476, 481, 486, 491, 496, 501, 506, 511, 516, 521] @
     [526, 531, 536, 541, 546, 551, 556, 561, 566, 571, 576, 581, 586, 591, 596, 601] @
     [606, 611, 616, 621, 626, 631, 636, 641, 646, 651, 656, 661, 666, 671, 677, 683] @
     [689, 695, 701, 707, 713, 719, 725, 731, 737, 743, 749, 755, 761, 767, 773, 779] @
     [785, 791, 797, 803, 810, 817, 824, 831, 838, 845, 852, 860, 868, 876]"

lemma smp_starts_all: "map fst smp_sequences = smp_starts"
  by (simp only: smp_starts_def smp_sequences_def list.map fst_conv append.simps)

lemma smp_kind_starts: "smp_kind a \<noteq> Bad \<Longrightarrow> a \<in> set smp_starts"
  by (simp only: smp_kind_def smp_starts_def set_append Un_iff split: if_split_asm)
    ((drule
      smp_kind_1_starts smp_kind_2_starts smp_kind_3_starts smp_kind_4_starts smp_kind_5_starts
      smp_kind_6_starts smp_kind_7_starts smp_kind_8_starts smp_kind_9_starts
      smp_kind_10_starts smp_kind_11_starts smp_kind_12_starts smp_kind_13_starts
      smp_kind_14_starts,
      simp only: simp_thms)+)

end
