(* ===== verification/Sip_Machine.thy ===== *)
theory Sip_Machine
  imports Sip_Msg_States Sip_Msg_Keys Sip_Msg_Indicies Sip_Msg_Trans
begin

text \<open>
  The machine of ext/sip_parser/sip_message_parser.c, all arrays together: no step reads outside
  them, and when the kind of a message gets known, once and before anything else is.
\<close>

definition sip_machine :: rgl_cond_tables where
  "sip_machine =
     \<lparr>c_offsets = smp_cond_offsets, c_lengths = smp_cond_lengths, c_keys = smp_cond_keys,
      c_spaces = smp_cond_spaces,
      c_machine =
        \<lparr>t_actions = smp_actions, t_key_offsets = smp_key_offsets, t_trans_keys = smp_trans_keys,
         t_single_lengths = smp_single_lengths, t_range_lengths = smp_range_lengths,
         t_index_offsets = smp_index_offsets, t_indicies = smp_indicies,
         t_trans_targs = smp_trans_targs, t_trans_actions = smp_trans_actions\<rparr>\<rparr>"

subsection \<open>The actions of a transition\<close>

fun begins :: "int list \<Rightarrow> bool" where
  "begins [] \<longleftrightarrow> False"
| "begins (a # as) \<longleftrightarrow>
     (9 \<le> a \<and> a \<le> 26 \<and> begins as) \<or> ((a = 0 \<or> a = 1) \<and> list_all (\<lambda>a. 3 \<le> a \<and> a < 108) as)"

definition acts_of_kind :: "acts_kind \<Rightarrow> int list \<Rightarrow> bool" where
  "acts_of_kind k as \<longleftrightarrow>
     (k = Quiet \<longrightarrow> list_all (\<lambda>a. a = 3) as) \<and> (k = Begins \<longrightarrow> begins as) \<and>
     (k = Keepalive \<longrightarrow> as = [2, 108]) \<and> (k = Done \<longrightarrow> as = [108]) \<and>
     (k = Goes \<longrightarrow> list_all (\<lambda>a. 3 \<le> a \<and> a < 108) as)"

lemma smp_acts_of_kind: "list_all (\<lambda>(a, as). acts_of_kind (smp_kind a) as) smp_sequences"
  by (simp only: smp_sequences_def acts_of_kind_def list.pred_inject case_prod_conv begins.simps
      smp_trans_defs list.inject list.distinct row_arith)

lemma smp_kind_in: "smp_kind a \<noteq> Bad \<Longrightarrow> a \<in> fst ` set smp_sequences"
  using smp_kind_starts [of a] by (simp flip: smp_starts_all)

lemma smp_kind_acts:
  assumes "smp_kind a \<noteq> Bad"
  shows "\<exists>as. t0_acts_at (c_machine sip_machine) a = Some as \<and> acts_of_kind (smp_kind a) as"
proof (cases "a = 0")
  case True
  have "smp_kind 0 = Quiet" by (simp only: smp_trans_defs row_arith)
  then show ?thesis using True by (simp add: t0_acts_at_def acts_of_kind_def)
next
  case False
  obtain as where as: "(a, as) \<in> set smp_sequences" using smp_kind_in [OF assms] by auto
  have "t0_acts_at (c_machine sip_machine) a = Some as"
    by (rule acts_laid_out [OF _ smp_sequences_laid_out as False]) (simp add: sip_machine_def smp_sequences_layout)
  then show ?thesis using smp_acts_of_kind as by (auto simp: list_all_iff)
qed

subsection \<open>Every array is read inside\<close>

lemmas smp_fields = sip_machine_def rgl_cond_tables.simps rgl_tables.simps

lemma smp_state_nth:
  "length smp_cond_offsets = 7688 \<and> length smp_cond_lengths = 7688 \<and> length smp_key_offsets = 7688 \<and>
   length smp_single_lengths = 7688 \<and> length smp_range_lengths = 7688 \<and> length smp_index_offsets = 7688 \<and>
   (\<forall>i < 7688. smp_state (int i) (smp_cond_offsets ! i) (smp_cond_lengths ! i) (smp_key_offsets ! i)
      (smp_single_lengths ! i) (smp_range_lengths ! i) (smp_index_offsets ! i))"
proof -
  note a = all6_nth [OF smp_cond_offsets_state]
  then have "length smp_cond_offsets = 7688" by simp
  then show ?thesis using a by simp
qed

lemma smp_indicies_nth:
  "length smp_indicies = 70161 \<and> (\<forall>i < 70161. smp_place (int i) (smp_indicies ! i))"
proof -
  note a = all1_nth [OF smp_indicies_place]
  then have "length smp_indicies = 70161" by simp
  then show ?thesis using a by simp
qed

lemma smp_trans_nth:
  "length smp_trans_targs = 8855 \<and> length smp_trans_actions = 8855 \<and>
   (\<forall>i < 8855. smp_trans (int i) (smp_trans_targs ! i) (smp_trans_actions ! i))"
proof -
  note a = all2_nth [OF smp_trans_targs_trans]
  then have "length smp_trans_targs = 8855" by simp
  then show ?thesis using a by simp
qed

lemma begins_codes: "begins as \<Longrightarrow> list_all (\<lambda>a. 0 \<le> a \<and> a < 109) as"
  by (induction as) (auto simp: list_all_iff)

lemma acts_of_kind_codes: "acts_of_kind k as \<Longrightarrow> k \<noteq> Bad \<Longrightarrow> list_all (\<lambda>a. 0 \<le> a \<and> a < 109) as"
  using begins_codes by (cases k) (auto simp: acts_of_kind_def list_all_iff)

lemma smp_codes_inside:
  assumes "smp_trans t q a"
  shows "codes_inside (c_machine sip_machine) 109 a"
proof -
  have "smp_kind a \<noteq> Bad" using assms by (simp add: smp_trans_def smp_goes_def)
  then show ?thesis using smp_kind_acts [of a] acts_of_kind_codes by (auto simp: codes_inside_def)
qed

lemma smp_place_trans: "smp_place i t \<Longrightarrow> 0 \<le> t \<and> t < 8855"
  by (auto simp: smp_place_def smp_early_trans_def smp_late_trans_def split: if_splits)

theorem sip_machine_inside: "all_inside sip_machine 7688 109"
proof -
  have q: "state_inside (int (length smp_cond_keys)) (int (length smp_cond_spaces))
      (int (length smp_trans_keys)) (int (length smp_indicies)) q"
    if "q \<in> set (states_of sip_machine)" for q
    using that smp_state_nth smp_indicies_nth smp_trans_keys_length smp_cond_keys_length smp_cond_spaces_length
    by (auto simp: states_of_def smp_fields smp_state_def in_set_conv_nth)
  have "0 \<le> t \<and> t < int (length smp_trans_targs)" if "t \<in> set smp_indicies" for t
    using that smp_indicies_nth smp_trans_nth smp_place_trans by (auto simp: in_set_conv_nth)
  moreover have "0 \<le> q \<and> q < 7688" if "q \<in> set smp_trans_targs" for q
    using that smp_trans_nth by (auto simp: in_set_conv_nth smp_trans_def)
  moreover have "codes_inside (c_machine sip_machine) 109 a" if "a \<in> set smp_trans_actions" for a
    using that smp_trans_nth smp_codes_inside by (auto simp: in_set_conv_nth)
  ultimately show ?thesis
    using smp_state_nth smp_trans_nth q by (auto simp: all_inside_def Let_def smp_fields)
qed

subsection \<open>The steps by the kind of the message\<close>

definition smp_steps :: "int \<Rightarrow> int \<times> int list \<Rightarrow> bool" where
  "smp_steps cs = (\<lambda>(q, as).
     if smp_early cs
     then (list_all (\<lambda>a. a = 3) as \<and> (q = 0 \<or> smp_early q)) \<or>
          (begins as \<and> q \<noteq> 0 \<and> \<not> smp_early q) \<or> (as = [2, 108] \<and> q = 7687)
     else \<not> smp_early q \<and> (list_all (\<lambda>a. 3 \<le> a \<and> a < 108) as \<or> (as = [108] \<and> q = 7687)))"

lemma smp_row:
  assumes "0 < cs" "cs < 7688" "takes sip_machine cs place t a r"
  shows "smp_place place t \<and> (if smp_early cs then smp_early_place place else \<not> smp_early_place place \<and> place \<noteq> 70160)"
proof -
  have "nat cs < 7688" "int (nat cs) = cs" using assms(1,2) by simp_all
  then have s: "smp_state cs (smp_cond_offsets ! nat cs) (smp_cond_lengths ! nat cs) (smp_key_offsets ! nat cs)
      (smp_single_lengths ! nat cs) (smp_range_lengths ! nat cs) (smp_index_offsets ! nat cs)"
    using smp_state_nth by metis
  have "rd smp_indicies place = Some t" using assms(3) by (auto simp: takes_def Let_def smp_fields)
  then have p: "smp_place place t"
    by (rule all1_rd [OF smp_indicies_place])
  have b: "smp_index_offsets ! nat cs \<le> place"
      "place \<le> smp_index_offsets ! nat cs + smp_single_lengths ! nat cs + smp_range_lengths ! nat cs"
    using assms(3) by (auto simp: takes_def Let_def smp_fields rd_def split: if_splits)
  show ?thesis using s b p assms(1) by (auto simp: smp_state_def smp_early_place_def state_inside_def split: if_splits)
qed

lemma smp_goes_steps:
  assumes t: "smp_trans t q a" "smp_kind a \<noteq> Bad \<Longrightarrow> acts_of_kind (smp_kind a) as"
    and row: "if smp_early cs then smp_early_trans t else smp_late_trans t"
  shows "smp_steps cs (q, as)"
proof -
  have g: "smp_goes (smp_kind a) t q" using t(1) by (simp add: smp_trans_def)
  then have k: "acts_of_kind (smp_kind a) as" using t(2) by (simp add: smp_goes_def)
  show ?thesis
  proof (cases "smp_early cs")
    case True
    then show ?thesis using g k row
      by (cases "smp_kind a") (auto simp: smp_goes_def acts_of_kind_def smp_steps_def)
  next
    case False
    then show ?thesis using g k row
      by (cases "smp_kind a") (auto simp: smp_goes_def acts_of_kind_def smp_steps_def list_all_iff)
  qed
qed

theorem smp_step:
  assumes "0 < cs" "cs < 7688"
  shows "\<exists>q as. cond_step sip_machine widen cs c = Some (q, as) \<and> 0 \<le> q \<and> q < 7688 \<and>
    (\<forall>a \<in> set as. 0 \<le> a \<and> a < 109) \<and> smp_steps cs (q, as)"
proof -
  obtain place t a q as where s: "cond_step sip_machine widen cs c = Some (q, as)" and k: "takes sip_machine cs place t a (q, as)"
    using cond_step_takes [OF sip_machine_inside, of cs widen c] assms by auto
  note row = smp_row [OF assms k]
  have t: "if smp_early cs then smp_early_trans t else smp_late_trans t"
    using row by (auto simp: smp_place_def split: if_splits)
  have "smp_trans t q a"
    using k all2_rd [OF smp_trans_targs_trans] by (auto simp: takes_def Let_def smp_fields)
  moreover from this have "acts_of_kind (smp_kind a) as" if "smp_kind a \<noteq> Bad"
    using smp_kind_acts [OF that] k by (auto simp: takes_def Let_def)
  ultimately have "smp_steps cs (q, as)" using t smp_goes_steps by blast
  then show ?thesis using cond_step_inside [OF sip_machine_inside, of cs widen c] assms s by auto
qed

end
