(* ===== verification/Sip_Stops.thy ===== *)
theory Sip_Stops
  imports Sip_Run Sip_Machine
begin

text \<open>
  Where the SIP message parser can stop.  With the arrays of sip_message_parser.c no \<open>assert\<close> of
  \<open>execute\<close> fails and no array is read outside its bounds: an \<open>execute\<close> that does not return is in
  a callback that does not return.  Then the kind of the message in a run: it is told once, before any
  other call.
\<close>

subsection \<open>What has happened, also where the parser stops\<close>

fun sip_trace ::
  "sip_tables \<Rightarrow> pton \<Rightarrow> ntop \<Rightarrow> string \<Rightarrow> string list \<Rightarrow> sip_message_parser \<Rightarrow> heap \<Rightarrow>
   (sip_action \<times> sip_call option) list" where
  "sip_trace T pton ntop seen [] pr h = []"
| "sip_trace T pton ntop seen (c # cs) pr h =
     (if sip_message_parser_has_error pr \<or> sip_message_parser_is_finished pr then []
      else
        sip_log T pton ntop pr h (seen @ c @ [CHR 0x00]) (length (seen @ c)) (nread pr) @
        (case sip_message_parser_execute T pton ntop pr h (seen @ c @ [CHR 0x00]) (length (seen @ c)) (nread pr) of
           None \<Rightarrow> []
         | Some (pr', h') \<Rightarrow> sip_trace T pton ntop (seen @ c) cs pr' h'))"

lemma sip_feed_trace: "sip_feed T pton ntop seen cs pr h = Some (pr', h', L) \<Longrightarrow> sip_trace T pton ntop seen cs pr h = L"
  by (induction cs arbitrary: seen pr h L) (auto split: option.splits if_splits)

text \<open>The positions kept in the struct, after \<open>n\<close> characters.\<close>

definition within :: "nat \<Rightarrow> sip_message_parser \<Rightarrow> bool" where
  "within n pr \<longleftrightarrow> mark pr < max 1 n \<and> hdr_field_start pr < max 1 n \<and> hdr_value_start pr < max 1 n \<and>
     hdr_field_len pr \<le> n \<and> hdr_value_len pr \<le> n"

lemma within_mono: "within m pr \<Longrightarrow> m \<le> n \<Longrightarrow> within n pr"
  by (auto simp: within_def)

lemma LEN_le: "at \<le> p \<Longrightarrow> LEN at p \<le> p"
proof -
  assume "at \<le> p"
  then have "(int p - int at) mod 2 ^ 64 \<le> int p - int at" by (intro zmod_le_nonneg_dividend) simp
  then show ?thesis by (simp add: LEN_def)
qed

lemma sip_do_within:
  assumes "within (Suc p) pr" and "sip_do buffer p a pr = (c, pr', out)"
  shows "within (Suc p) pr'"
proof -
  have "hdr_field_start pr \<le> p" "hdr_value_start pr \<le> p" using assms(1) by (simp_all add: within_def)
  then have l: "LEN (hdr_field_start pr) p \<le> Suc p" "LEN (hdr_value_start pr) p \<le> Suc p"
    using LEN_le le_SucI by blast+
  show ?thesis using assms l
    by (cases a) (auto simp: within_def set_to_def calls_def split: if_splits)
qed

lemma sip_switch_length: "length sip_switch = 109"
  by (simp add: sip_switch_def)

lemma sip_switch_done: "0 \<le> a \<Longrightarrow> a < 108 \<Longrightarrow> sip_switch ! nat a \<noteq> A_done"
proof -
  assume "0 \<le> a" "a < 108"
  then have "sip_switch ! nat a \<in> set (take 108 sip_switch)"
    using sip_switch_length nth_mem [of "nat a" "take 108 sip_switch"] by (simp add: nat_less_iff)
  moreover have "A_done \<notin> set (take 108 sip_switch)" by (simp add: sip_switch_def)
  ultimately show ?thesis by metis
qed

lemma sip_do_out: "sip_do buffer p a pr = (c, pr', out) \<Longrightarrow> out \<Longrightarrow> a = A_done"
  by (cases a) (auto simp: set_to_def calls_def split: if_splits)

text \<open>One action: it makes its call or stops there.\<close>

definition stuck :: "pton \<Rightarrow> ntop \<Rightarrow> rval \<Rightarrow> heap \<times> rval \<Rightarrow> (sip_action \<times> sip_call option) list \<Rightarrow> bool" where
  "stuck pton ntop self s L \<longleftrightarrow> replay pton ntop self (calls_of L) s = None"

lemma sip_act_cases:
  assumes r: "replayed pton ntop self s L pr h" and w: "within (Suc p) pr" and a: "0 \<le> a" "a < 109"
  shows "(\<exists>pr' h' out. sip_act pton ntop buffer a p (pr, h) = Some ((pr', h'), out) \<and> within (Suc p) pr' \<and>
      (out \<longrightarrow> a = 108)) \<or>
    (sip_act pton ntop buffer a p (pr, h) = None \<and> stuck pton ntop self s (L @ sip_entry buffer (a, p, pr, h)))"
proof -
  have i: "0 \<le> a \<and> nat a < length sip_switch" using a by (simp add: sip_switch_length nat_less_iff)
  obtain c pr1 out where d: "sip_do buffer p (sip_switch ! nat a) pr = (c, pr1, out)"
    by (cases "sip_do buffer p (sip_switch ! nat a) pr")
  have w1: "within (Suc p) pr1" by (rule sip_do_within [OF w d])
  have o: "out \<longrightarrow> a = 108" using sip_do_out [OF d] sip_switch_done [of a] a by (cases "a < 108") auto
  show ?thesis
  proof (cases c)
    case None
    then show ?thesis using i d w1 o by (simp add: sip_act_def)
  next
    case (Some x)
    then show ?thesis using i d w1 o r
      by (cases "sip_dispatch pton ntop self (parsed pr) x h")
        (auto simp: sip_act_def replayed_def stuck_def calls_of_append replay_calls_append within_def)
  qed
qed

lemma begins_108: "begins as \<Longrightarrow> 108 \<notin> set as"
  by (induction as) (auto simp: list_all_iff)

lemma sip_acts_cases:
  assumes "replayed pton ntop self s L pr h" "within (Suc p) pr" "\<forall>a \<in> set as. 0 \<le> a \<and> a < 109"
  shows "(\<exists>pr' h' out. t0_acts (sip_act pton ntop buffer) p as (pr, h) = Some ((pr', h'), out) \<and>
      within (Suc p) pr' \<and> (out \<longrightarrow> 108 \<in> set as)) \<or>
    (t0_acts (sip_act pton ntop buffer) p as (pr, h) = None \<and>
     stuck pton ntop self s
       (L @ concat (map (sip_entry buffer) (t0_acts_path (sip_act pton ntop buffer) p as (pr, h)))))"
  using assms
proof (induction as arbitrary: L pr h)
  case (Cons a as)
  from Cons.prems(3) have "0 \<le> a" "a < 109" by simp_all
  from sip_act_cases [OF Cons.prems(1,2) this, of buffer] show ?case
  proof (elim disjE exE conjE)
    fix pr1 h1 out
    assume st: "sip_act pton ntop buffer a p (pr, h) = Some ((pr1, h1), out)" "within (Suc p) pr1" "out \<longrightarrow> a = 108"
    note r = replay.act [OF Cons.prems(1) st(1)]
    show ?case
    proof (cases out)
      case False
      then show ?thesis using Cons.IH [OF r st(2)] Cons.prems(3) st by (auto simp: append_assoc)
    qed (use st in auto)
  qed simp
qed (auto intro: exI [of _ False])

lemma sip_exec_cases:
  assumes "replayed pton ntop self s L pr h" "within p pr" "0 \<le> cs" "cs < 7688"
  shows "(\<exists>cs' q pr' h'. t0_exec (sip_step sip_machine) (sip_act pton ntop buffer) cs p w (pr, h) = Some (cs', q, pr', h') \<and>
      0 \<le> cs' \<and> cs' < 7688 \<and> within (p + length w) pr' \<and>
      (cs' \<noteq> 0 \<and> cs' \<noteq> 7687 \<longrightarrow> q = p + length w)) \<or>
    (t0_exec (sip_step sip_machine) (sip_act pton ntop buffer) cs p w (pr, h) = None \<and>
     stuck pton ntop self s
       (L @ concat (map (sip_entry buffer) (t0_path (sip_step sip_machine) (sip_act pton ntop buffer) cs p w (pr, h)))))"
  using assms
proof (induction w arbitrary: L cs p pr h)
  case (Cons c w)
  show ?case
  proof (cases "cs = 0")
    case True
    then show ?thesis using within_mono [OF Cons.prems(2)] by simp
  next
    case False
    obtain q as where st: "sip_step sip_machine (pr, h) cs (schar c) = Some (q, as)" "0 \<le> q" "q < 7688"
        "\<forall>a \<in> set as. 0 \<le> a \<and> a < 109" "smp_steps cs (q, as)"
      using smp_step [of cs] Cons.prems(3,4) False unfolding sip_step_def by fastforce
    have fin: "108 \<in> set as \<longrightarrow> q = 7687"
      using st(5) begins_108 by (auto simp: smp_steps_def list_all_iff split: if_splits)
    have "within (Suc p) pr" by (rule within_mono [OF Cons.prems(2)]) simp
    from sip_acts_cases [OF Cons.prems(1) this st(4), of buffer]
    show ?thesis
    proof (elim disjE exE conjE)
      fix pr1 h1 out
      assume ac: "t0_acts (sip_act pton ntop buffer) p as (pr, h) = Some ((pr1, h1), out)" "within (Suc p) pr1"
        "out \<longrightarrow> 108 \<in> set as"
      note r = replay.acts [OF Cons.prems(1) ac(1)]
      show ?thesis
      proof (cases "out \<or> q = 0")
        case True
        then show ?thesis using False st ac fin within_mono [OF ac(2), of "p + length (c # w)"] by auto
      next
        case go: False
        then show ?thesis using Cons.IH [OF r ac(2) st(2,3)] False st ac by (auto simp: append_assoc)
      qed
    next
      assume "t0_acts (sip_act pton ntop buffer) p as (pr, h) = None"
        "stuck pton ntop self s
           (L @ concat (map (sip_entry buffer) (t0_acts_path (sip_act pton ntop buffer) p as (pr, h))))"
      then show ?thesis using False st by simp
    qed
  qed
qed simp

lemma sip_do_nread: "sip_do buffer p a pr = (c, pr', out) \<Longrightarrow> nread pr' = nread pr"
  by (cases a) (auto simp: set_to_def calls_def split: if_splits)

lemma sip_act_nread: "sip_act pton ntop buffer a p (pr, h) = Some ((pr', h'), out) \<Longrightarrow> nread pr' = nread pr"
  using sip_do_nread [of buffer p "sip_switch ! nat a" pr]
  by (auto simp: sip_act_def split: if_splits prod.splits option.splits)

lemma sip_acts_nread:
  "t0_acts (sip_act pton ntop buffer) p as (pr, h) = Some ((pr', h'), out) \<Longrightarrow> nread pr' = nread pr"
  by (induction as arbitrary: pr h) (auto split: option.splits if_splits dest!: sip_act_nread)

lemma sip_exec_nread:
  "t0_exec step (sip_act pton ntop buffer) cs p w (pr, h) = Some (cs', q, pr', h') \<Longrightarrow> nread pr' = nread pr"
  by (induction w arbitrary: cs p pr h) (auto split: option.splits if_splits dest!: sip_acts_nread)

lemma sip_execute_cases:
  assumes r: "replayed pton ntop self s L pr h" and w: "within (nread pr) pr" and cs: "0 \<le> s_cs pr" "s_cs pr < 7688"
    and b: "buffer = seen @ c" "nread pr = length seen" "buffer \<noteq> []"
  shows "(\<exists>pr' h'. sip_message_parser_execute sip_machine pton ntop pr h (buffer @ [CHR 0x00]) (length buffer) (nread pr) =
      Some (pr', h') \<and> 0 \<le> s_cs pr' \<and> s_cs pr' < 7688 \<and>
      (s_cs pr' \<noteq> 0 \<and> s_cs pr' \<noteq> 7687 \<longrightarrow> nread pr' = length buffer \<and> within (length buffer) pr')) \<or>
    (sip_message_parser_execute sip_machine pton ntop pr h (buffer @ [CHR 0x00]) (length buffer) (nread pr) = None \<and>
     stuck pton ntop self s
       (L @ sip_log sip_machine pton ntop pr h (buffer @ [CHR 0x00]) (length buffer) (nread pr)))"
proof -
  let ?B = "buffer @ [CHR 0x00]" and ?n = "nread pr"
  let ?run = "t0_exec (sip_step sip_machine) (sip_act pton ntop ?B) (s_cs pr) ?n c (pr, h)"
  have t: "take (length buffer - ?n) (drop ?n ?B) = c" "?n \<le> length buffer" "?n + length c = length buffer"
    using b by simp_all
  have ex: "sip_message_parser_execute sip_machine pton ntop pr h ?B (length buffer) ?n =
      do {
        (cs', p, pr', h') \<leftarrow> ?run;
        let pr' = pr'\<lparr>s_cs := cs', nread := nread pr' + (p - ?n)\<rparr>;
        (if p \<le> length buffer \<and> nread pr' \<le> length buffer \<and> mark pr' < length buffer \<and>
            hdr_field_start pr' < length buffer \<and> hdr_field_len pr' \<le> length buffer \<and>
            hdr_value_start pr' < length buffer \<and> hdr_value_len pr' \<le> length buffer
         then
           Some (if sip_message_parser_has_error pr'
                 then pr'\<lparr>error_start := Some ?B, error_len := length buffer, error_pos := to_c_int (int p)\<rparr>
                 else pr', h')
         else None)
      }"
    using t by (simp add: sip_message_parser_execute_def)
  from sip_exec_cases [OF r w cs, of ?B c] show ?thesis
  proof (elim disjE exE conjE)
    fix cs' q pr1 h1
    assume run: "?run = Some (cs', q, pr1, h1)" "0 \<le> cs'" "cs' < 7688" "within (?n + length c) pr1"
      "cs' \<noteq> 0 \<and> cs' \<noteq> 7687 \<longrightarrow> q = ?n + length c"
    have n: "nread pr1 = ?n" using sip_exec_nread [OF run(1)] .
    have q: "?n \<le> q" "q \<le> length buffer" using t0_exec_pos [OF run(1)] t by simp_all
    have "max 1 (length buffer) = length buffer" using b(3) by (cases buffer) auto
    then show ?thesis using run n q t
      by (auto simp: ex within_def Let_def sip_message_parser_has_error_def)
  next
    assume "?run = None"
      "stuck pton ntop self s
        (L @ concat (map (sip_entry ?B) (t0_path (sip_step sip_machine) (sip_act pton ntop ?B) (s_cs pr) ?n c (pr, h))))"
    then show ?thesis unfolding ex sip_log_def t(1) by simp
  qed
qed

theorem sip_trace_cases:
  assumes "replayed pton ntop self s L pr h" "within (nread pr) pr" "0 \<le> s_cs pr" "s_cs pr < 7688"
    "nread pr = length seen" "seen = [] \<longrightarrow> cs = [] \<or> hd cs \<noteq> []"
  shows "(\<exists>pr' h'. sip_feed sip_machine pton ntop seen cs pr h =
        Some (pr', h', sip_trace sip_machine pton ntop seen cs pr h) \<and> 0 \<le> s_cs pr' \<and> s_cs pr' < 7688 \<and>
        (s_cs pr' \<noteq> 0 \<and> s_cs pr' \<noteq> 7687 \<longrightarrow> nread pr' = length (seen @ concat cs))) \<or>
    (sip_feed sip_machine pton ntop seen cs pr h = None \<and>
     stuck pton ntop self s (L @ sip_trace sip_machine pton ntop seen cs pr h))"
  using assms
proof (induction cs arbitrary: L seen pr h)
  case (Cons c cs)
  show ?case
  proof (cases "sip_message_parser_has_error pr \<or> sip_message_parser_is_finished pr")
    case True
    then show ?thesis using Cons.prems by (auto simp: sip_message_parser_has_error_def sip_message_parser_is_finished_def)
  next
    case False
    let ?b = "seen @ c"
    have ne: "?b \<noteq> []" using Cons.prems(6) by auto
    let ?ex = "sip_message_parser_execute sip_machine pton ntop pr h (?b @ [CHR 0x00]) (length ?b) (nread pr)"
    from sip_execute_cases [OF Cons.prems(1-4) refl Cons.prems(5) ne] show ?thesis
    proof (elim disjE exE conjE)
      fix pr1 h1
      assume ex: "?ex = Some (pr1, h1)" "0 \<le> s_cs pr1" "s_cs pr1 < 7688"
        "s_cs pr1 \<noteq> 0 \<and> s_cs pr1 \<noteq> 7687 \<longrightarrow> nread pr1 = length ?b \<and> within (length ?b) pr1"
      note r = replay.execute [OF Cons.prems(1) ex(1)]
      show ?thesis
      proof (cases "s_cs pr1 = 0 \<or> s_cs pr1 = 7687")
        case True
        then have "sip_feed sip_machine pton ntop ?b cs pr1 h1 = Some (pr1, h1, [])"
          "sip_trace sip_machine pton ntop ?b cs pr1 h1 = []"
          by (cases cs; auto simp: sip_message_parser_has_error_def sip_message_parser_is_finished_def)+
        then show ?thesis using False ex True by auto
      next
        case go: False
        then have "within (nread pr1) pr1" "nread pr1 = length ?b" using ex(4) by simp_all
        from Cons.IH [OF r this(1) ex(2,3) this(2)] ne show ?thesis using False ex(1) by (auto simp: append_assoc)
      qed
    next
      assume "?ex = None" "stuck pton ntop self s
          (L @ sip_log sip_machine pton ntop pr h (?b @ [CHR 0x00]) (length ?b) (nread pr))"
      then show ?thesis using False by simp
    qed
  qed
qed simp

subsection \<open>The kind of the message\<close>

definition no_kind :: "sip_call list \<Rightarrow> bool" where
  "no_kind C \<longleftrightarrow> (\<forall>t. Data_type t \<notin> set C)"

definition begun :: "sip_call list \<Rightarrow> bool" where
  "begun C \<longleftrightarrow> (\<exists>t D. C = Data_type t # D \<and> no_kind D)"

lemma begun_append: "begun C \<Longrightarrow> no_kind D \<Longrightarrow> begun (C @ D)"
  by (auto simp: begun_def no_kind_def)

definition kind_known :: "int \<Rightarrow> sip_call list \<Rightarrow> bool" where
  "kind_known cs C \<longleftrightarrow> (if cs = 0 then C = [] \<or> begun C else if smp_early cs then C = [] else begun C)"

text \<open>The actions by their number.\<close>

lemma sip_switch_kinds:
  "sip_switch ! 0 = A_data_type sip_request" "sip_switch ! Suc 0 = A_data_type sip_response"
  "sip_switch ! 2 = A_data_type outbound_keepalive" "sip_switch ! 3 = A_mark" "sip_switch ! 108 = A_done"
  by (simp_all add: sip_switch_def)

lemma sip_switch_part:
  assumes "l \<le> nat a" "nat a < l + n" "l + n \<le> 109"
  shows "sip_switch ! nat a \<in> set (take n (drop l sip_switch))"
  using assms sip_switch_length by (auto simp: in_set_conv_nth intro!: exI [of _ "nat a - l"])

lemma sip_switch_method: "9 \<le> a \<Longrightarrow> a \<le> 26 \<Longrightarrow> \<exists>m. sip_switch ! nat a = A_method_is m"
proof -
  assume "9 \<le> a" "a \<le> 26"
  then have "sip_switch ! nat a \<in> set (take 18 (drop 9 sip_switch))" by (intro sip_switch_part) auto
  moreover have "\<forall>x \<in> set (take 18 (drop 9 sip_switch)). \<exists>m. x = A_method_is m" by (simp add: sip_switch_def)
  ultimately show ?thesis by blast
qed

lemma sip_switch_late: "3 \<le> a \<Longrightarrow> a \<le> 108 \<Longrightarrow> sip_switch ! nat a \<noteq> A_data_type t"
proof -
  assume "3 \<le> a" "a \<le> 108"
  then have "sip_switch ! nat a \<in> set (take 106 (drop 3 sip_switch))" by (intro sip_switch_part) auto
  moreover have "\<forall>x \<in> set (take 106 (drop 3 sip_switch)). x \<noteq> A_data_type t" by (simp add: sip_switch_def)
  ultimately show ?thesis by blast
qed

lemma sip_do_kind: "fst (sip_do buffer p a pr) = Some (Data_type t) \<longleftrightarrow> a = A_data_type t"
  by (cases a) (auto simp: set_to_def calls_def)

lemma sip_do_mark: "sip_do buffer p a pr = (c, pr', out) \<Longrightarrow> a = A_mark \<or> (\<exists>m. a = A_method_is m) \<Longrightarrow> c = None \<and> \<not> out"
  by (auto simp: set_to_def)

definition entries :: "pton \<Rightarrow> ntop \<Rightarrow> string \<Rightarrow> nat \<Rightarrow> int list \<Rightarrow> sip_message_parser \<times> heap \<Rightarrow> sip_call list" where
  "entries pton ntop buffer p as d =
     calls_of (concat (map (sip_entry buffer) (t0_acts_path (sip_act pton ntop buffer) p as d)))"

lemma entries_Nil: "entries pton ntop buffer p [] d = []"
  by (simp add: entries_def)

lemma entries_Cons:
  "entries pton ntop buffer p (a # as) (pr, h) =
     calls_of (sip_entry buffer (a, p, pr, h)) @
     (case sip_act pton ntop buffer a p (pr, h) of
        None \<Rightarrow> [] | Some (d, out) \<Rightarrow> if out then [] else entries pton ntop buffer p as d)"
  by (cases "sip_act pton ntop buffer a p (pr, h)") (auto simp: entries_def calls_of_append simp del: sip_entry.simps)

lemma entry_silent:
  assumes "a = 3 \<or> (9 \<le> a \<and> a \<le> 26)"
  shows "\<exists>pr'. sip_act pton ntop buffer a p (pr, h) = Some ((pr', h), False) \<and> calls_of (sip_entry buffer (a, p, pr, h)) = []"
proof -
  have x: "sip_switch ! nat a = A_mark \<or> (\<exists>m. sip_switch ! nat a = A_method_is m)"
    using assms sip_switch_method [of a] by (auto simp: sip_switch_kinds)
  obtain c pr1 out where d: "sip_do buffer p (sip_switch ! nat a) pr = (c, pr1, out)"
    by (cases "sip_do buffer p (sip_switch ! nat a) pr")
  show ?thesis using sip_do_mark [OF d x] d by (auto simp: sip_act_def)
qed

lemma entry_late:
  assumes "3 \<le> a" "a \<le> 108"
  shows "no_kind (calls_of (sip_entry buffer (a, p, pr, h)))"
proof -
  show ?thesis
    using sip_switch_late [OF assms] sip_do_kind [of buffer p "sip_switch ! nat a" pr]
    by (cases "fst (sip_do buffer p (sip_switch ! nat a) pr)") (auto simp: no_kind_def)
qed

lemma entries_marks: "list_all (\<lambda>a. a = 3) as \<Longrightarrow> entries pton ntop buffer p as (pr, h) = []"
proof (induction as arbitrary: pr h)
  case (Cons a as)
  then obtain pr' where "sip_act pton ntop buffer a p (pr, h) = Some ((pr', h), False)"
      "calls_of (sip_entry buffer (a, p, pr, h)) = []"
    using entry_silent [of a pton ntop buffer p pr h] by auto
  then show ?case using Cons by (simp add: entries_Cons del: sip_entry.simps)
qed (simp add: entries_Nil)

lemma no_kind_simps: "no_kind []" "no_kind (C @ D) \<longleftrightarrow> no_kind C \<and> no_kind D"
  by (auto simp: no_kind_def)

lemma entries_late: "list_all (\<lambda>a. 3 \<le> a \<and> a \<le> 108) as \<Longrightarrow> no_kind (entries pton ntop buffer p as (pr, h))"
proof (induction as arbitrary: pr h)
  case (Cons a as)
  then show ?case using entry_late [of a buffer p pr h]
    by (auto simp: entries_Cons no_kind_simps simp del: sip_entry.simps split: option.split)
qed (simp add: entries_Nil no_kind_simps)

lemma entries_begin:
  assumes "a \<in> {0, 1, 2}" "list_all (\<lambda>a. 3 \<le> a \<and> a \<le> 108) as"
  shows "begun (entries pton ntop buffer p (a # as) (pr, h))"
proof -
  obtain t where t: "sip_switch ! nat a = A_data_type t" using assms(1) sip_switch_kinds by auto
  have "nat a < 109" using assms(1) by auto
  then have "calls_of (sip_entry buffer (a, p, pr, h)) = [Data_type t]"
    using t assms(1) sip_switch_length by (auto simp: calls_def)
  moreover have "no_kind (case sip_act pton ntop buffer a p (pr, h) of
        None \<Rightarrow> [] | Some (d, out) \<Rightarrow> if out then [] else entries pton ntop buffer p as d)"
    using entries_late [OF assms(2)] by (auto simp: no_kind_simps split: option.split)
  ultimately show ?thesis by (auto simp: entries_Cons begun_def simp del: sip_entry.simps)
qed

lemma entries_begins: "begins as \<Longrightarrow> begun (entries pton ntop buffer p as (pr, h))"
proof (induction as arbitrary: pr h)
  case (Cons a as)
  show ?case
  proof (cases "9 \<le> a \<and> a \<le> 26")
    case True
    then obtain pr' where "sip_act pton ntop buffer a p (pr, h) = Some ((pr', h), False)"
        "calls_of (sip_entry buffer (a, p, pr, h)) = []"
      using entry_silent [of a pton ntop buffer p pr h] by auto
    then show ?thesis using Cons True by (simp add: entries_Cons del: sip_entry.simps)
  next
    case False
    then show ?thesis using Cons.prems by (fastforce intro!: entries_begin simp: list_all_iff)
  qed
qed simp

lemma smp_steps_kind:
  assumes "kind_known cs C" "cs \<noteq> 0" "smp_steps cs (q, as)"
  shows "kind_known q (C @ entries pton ntop buffer p as (pr, h))"
proof (cases "smp_early cs")
  case True
  then have C: "C = []" using assms(1,2) by (simp add: kind_known_def)
  consider "list_all (\<lambda>a. a = 3) as" "q = 0 \<or> smp_early q" | "begins as" "q \<noteq> 0" "\<not> smp_early q"
    | "as = [2, 108]" "q = 7687"
    using assms(3) True by (auto simp: smp_steps_def)
  then show ?thesis
  proof cases
    case 3
    then show ?thesis using C entries_begin [of 2 "[108]" pton ntop buffer p pr h]
      by (simp add: kind_known_def smp_early_def)
  qed (use C entries_marks entries_begins in \<open>auto simp: kind_known_def\<close>)
next
  case False
  then have C: "begun C" using assms(1,2) by (simp add: kind_known_def)
  have "list_all (\<lambda>a. 3 \<le> a \<and> a \<le> 108) as" using assms(3) False by (auto simp: smp_steps_def list_all_iff)
  then have "begun (C @ entries pton ntop buffer p as (pr, h))" by (rule begun_append [OF C entries_late])
  then show ?thesis using assms(3) False by (auto simp: kind_known_def smp_steps_def)
qed

definition path_calls ::
  "pton \<Rightarrow> ntop \<Rightarrow> string \<Rightarrow> int \<Rightarrow> nat \<Rightarrow> string \<Rightarrow> sip_message_parser \<times> heap \<Rightarrow> sip_call list" where
  "path_calls pton ntop buffer cs p w d =
     calls_of (concat (map (sip_entry buffer) (t0_path (sip_step sip_machine) (sip_act pton ntop buffer) cs p w d)))"

lemma sip_path_kind:
  assumes "kind_known cs C" "0 \<le> cs" "cs < 7688"
  shows "\<exists>q. kind_known q (C @ path_calls pton ntop buffer cs p w (pr, h)) \<and>
    (\<forall>cs' r d. t0_exec (sip_step sip_machine) (sip_act pton ntop buffer) cs p w (pr, h) = Some (cs', r, d) \<longrightarrow> q = cs')"
  using assms
proof (induction w arbitrary: C cs p pr h)
  case (Cons c w)
  show ?case
  proof (cases "cs = 0")
    case False
    obtain q as where st: "sip_step sip_machine (pr, h) cs (schar c) = Some (q, as)" "0 \<le> q" "q < 7688"
        "smp_steps cs (q, as)"
      using smp_step [of cs] Cons.prems(2,3) False unfolding sip_step_def by fastforce
    note k = smp_steps_kind [OF Cons.prems(1) False st(4), of pton ntop buffer p pr h]
    let ?rest = "case t0_acts (sip_act pton ntop buffer) p as (pr, h) of
        None \<Rightarrow> []
      | Some (d', out) \<Rightarrow> if out \<or> q = 0 then [] else path_calls pton ntop buffer q (p + 1) w d'"
    have path: "path_calls pton ntop buffer cs p (c # w) (pr, h) = entries pton ntop buffer p as (pr, h) @ ?rest"
      using False st(1)
      by (cases "t0_acts (sip_act pton ntop buffer) p as (pr, h)")
        (auto simp: path_calls_def entries_def calls_of_append)
    show ?thesis
    proof (cases "t0_acts (sip_act pton ntop buffer) p as (pr, h)")
      case None
      then show ?thesis using k False st(1) path by auto
    next
      case (Some e)
      obtain pr1 h1 out where e: "e = ((pr1, h1), out)" by (metis surj_pair)
      show ?thesis
      proof (cases "out \<or> q = 0")
        case True
        then show ?thesis using k False st(1) path Some e by auto
      next
        case go: False
        then show ?thesis using Cons.IH [OF k st(2,3), of "p + 1" pr1 h1] False st(1) path Some e
          by (auto simp: append_assoc)
      qed
    qed
  qed (use Cons in \<open>auto simp: path_calls_def\<close>)
qed (auto simp: path_calls_def)

subsection \<open>Over all pieces\<close>

lemma sip_exec_range:
  "t0_exec (sip_step sip_machine) act cs p w d = Some (cs', q, d') \<Longrightarrow> 0 \<le> cs \<Longrightarrow> cs < 7688 \<Longrightarrow>
   0 \<le> cs' \<and> cs' < 7688"
proof (induction w arbitrary: cs p d)
  case (Cons c w)
  show ?case
  proof (cases "cs = 0")
    case False
    obtain q1 as where st: "sip_step sip_machine d cs (schar c) = Some (q1, as)" "0 \<le> q1" "q1 < 7688"
      using smp_step [of cs] Cons.prems(2,3) False unfolding sip_step_def by fastforce
    then show ?thesis using Cons False by (auto split: option.splits if_splits)
  qed (use Cons in auto)
qed simp

lemma sip_trace_kind:
  assumes "kind_known (s_cs pr) C" "0 \<le> s_cs pr" "s_cs pr < 7688"
  shows "\<exists>q. kind_known q (C @ calls_of (sip_trace sip_machine pton ntop seen cs pr h)) \<and>
    (\<forall>pr' h' L. sip_feed sip_machine pton ntop seen cs pr h = Some (pr', h', L) \<longrightarrow> q = s_cs pr')"
  using assms
proof (induction cs arbitrary: C seen pr h)
  case (Cons c cs)
  show ?case
  proof (cases "sip_message_parser_has_error pr \<or> sip_message_parser_is_finished pr")
    case False
    let ?b = "seen @ c" and ?n = "nread pr"
    let ?B = "seen @ c @ [CHR 0x00]" and ?len = "length (seen @ c)"
    let ?w = "take (?len - ?n) (drop ?n ?B)"
    let ?ex = "sip_message_parser_execute sip_machine pton ntop pr h ?B ?len ?n"
    have log: "calls_of (sip_log sip_machine pton ntop pr h ?B ?len ?n) = path_calls pton ntop ?B (s_cs pr) ?n ?w (pr, h)"
      by (simp add: sip_log_def path_calls_def)
    obtain q where q: "kind_known q (C @ path_calls pton ntop ?B (s_cs pr) ?n ?w (pr, h))"
      "\<And>cs' r d. t0_exec (sip_step sip_machine) (sip_act pton ntop ?B) (s_cs pr) ?n ?w (pr, h) = Some (cs', r, d) \<Longrightarrow> q = cs'"
      using sip_path_kind [OF Cons.prems, of pton ntop ?B ?n ?w pr h] by blast
    show ?thesis
    proof (cases ?ex)
      case None
      then show ?thesis using False q(1) log by (auto simp: calls_of_append)
    next
      case (Some e)
      obtain pr1 h1 where e: "e = (pr1, h1)" by (cases e)
      obtain r d where ex: "t0_exec (sip_step sip_machine) (sip_act pton ntop ?B) (s_cs pr) ?n ?w (pr, h) = Some (s_cs pr1, r, d)"
        using Some e by (auto simp: sip_message_parser_execute_def bind_eq_Some_conv Let_def split: if_splits)
      have k: "kind_known (s_cs pr1) (C @ calls_of (sip_log sip_machine pton ntop pr h ?B ?len ?n))"
        using q(1) q(2) [OF ex] log by simp
      have "0 \<le> s_cs pr1" "s_cs pr1 < 7688" using sip_exec_range [OF ex Cons.prems(2,3)] by simp_all
      from Cons.IH [OF k this, of ?b h1] show ?thesis using False Some e
        by (auto simp: calls_of_append append_assoc)
    qed
  qed (use Cons.prems in auto)
qed auto

end
