(* ===== verification/Sip_Request.thy ===== *)
theory Sip_Request
  imports Sip_Machine Sip_Example
begin

text \<open>
  The machine of sip_message_parser.c at the start of a request, evaluated: the elements of the
  arrays that are read, the two steps, and the run they make.
\<close>

text \<open>The lengths of the pieces in front of an element.\<close>

lemmas smp_state_lengths =
  all6_lengths [OF smp_cond_offsets_1_state]
  all6_lengths [OF smp_cond_offsets_2_state]
  all6_lengths [OF smp_cond_offsets_3_state]
  all6_lengths [OF smp_cond_offsets_4_state]
  all6_lengths [OF smp_cond_offsets_5_state]
  all6_lengths [OF smp_cond_offsets_6_state]

lemmas smp_indicies_lengths =
  all1_length [OF smp_indicies_1_place]
  all1_length [OF smp_indicies_2_place]
  all1_length [OF smp_indicies_3_place]
  all1_length [OF smp_indicies_4_place]
  all1_length [OF smp_indicies_5_place]
  all1_length [OF smp_indicies_6_place]
  all1_length [OF smp_indicies_7_place]
  all1_length [OF smp_indicies_8_place]
  all1_length [OF smp_indicies_9_place]
  all1_length [OF smp_indicies_10_place]
  all1_length [OF smp_indicies_11_place]
  all1_length [OF smp_indicies_12_place]
  all1_length [OF smp_indicies_13_place]
  all1_length [OF smp_indicies_14_place]
  all1_length [OF smp_indicies_15_place]
  all1_length [OF smp_indicies_16_place]
  all1_length [OF smp_indicies_17_place]
  all1_length [OF smp_indicies_18_place]
  all1_length [OF smp_indicies_19_place]
  all1_length [OF smp_indicies_20_place]
  all1_length [OF smp_indicies_21_place]
  all1_length [OF smp_indicies_22_place]
  all1_length [OF smp_indicies_23_place]
  all1_length [OF smp_indicies_24_place]
  all1_length [OF smp_indicies_25_place]
  all1_length [OF smp_indicies_26_place]
  all1_length [OF smp_indicies_27_place]
  all1_length [OF smp_indicies_28_place]
  all1_length [OF smp_indicies_29_place]
  all1_length [OF smp_indicies_30_place]
  all1_length [OF smp_indicies_31_place]
  all1_length [OF smp_indicies_32_place]
  all1_length [OF smp_indicies_33_place]
  all1_length [OF smp_indicies_34_place]
  all1_length [OF smp_indicies_35_place]
  all1_length [OF smp_indicies_36_place]
  all1_length [OF smp_indicies_37_place]
  all1_length [OF smp_indicies_38_place]
  all1_length [OF smp_indicies_39_place]
  all1_length [OF smp_indicies_40_place]
  all1_length [OF smp_indicies_41_place]
  all1_length [OF smp_indicies_42_place]
  all1_length [OF smp_indicies_43_place]
  all1_length [OF smp_indicies_44_place]
  all1_length [OF smp_indicies_45_place]
  all1_length [OF smp_indicies_46_place]
  all1_length [OF smp_indicies_47_place]
  all1_length [OF smp_indicies_48_place]
  all1_length [OF smp_indicies_49_place]
  all1_length [OF smp_indicies_50_place]
  all1_length [OF smp_indicies_51_place]
  all1_length [OF smp_indicies_52_place]
  all1_length [OF smp_indicies_53_place]
  all1_length [OF smp_indicies_54_place]
  all1_length [OF smp_indicies_55_place]
  all1_length [OF smp_indicies_56_place]
  all1_length [OF smp_indicies_57_place]
  all1_length [OF smp_indicies_58_place]

lemmas smp_trans_lengths = all2_lengths [OF smp_trans_targs_1_trans]

lemmas smp_trans_keys_lengths =
  smp_trans_keys_1_length smp_trans_keys_2_length smp_trans_keys_3_length smp_trans_keys_4_length
  smp_trans_keys_5_length smp_trans_keys_6_length smp_trans_keys_7_length smp_trans_keys_8_length
  smp_trans_keys_9_length smp_trans_keys_10_length smp_trans_keys_11_length
  smp_trans_keys_12_length smp_trans_keys_13_length smp_trans_keys_14_length
  smp_trans_keys_15_length smp_trans_keys_16_length smp_trans_keys_17_length
  smp_trans_keys_18_length smp_trans_keys_19_length smp_trans_keys_20_length
  smp_trans_keys_21_length smp_trans_keys_22_length smp_trans_keys_23_length
  smp_trans_keys_24_length smp_trans_keys_25_length smp_trans_keys_26_length
  smp_trans_keys_27_length smp_trans_keys_28_length smp_trans_keys_29_length
  smp_trans_keys_30_length smp_trans_keys_31_length smp_trans_keys_32_length
  smp_trans_keys_33_length smp_trans_keys_34_length smp_trans_keys_35_length
  smp_trans_keys_36_length smp_trans_keys_37_length smp_trans_keys_38_length
  smp_trans_keys_39_length smp_trans_keys_40_length smp_trans_keys_41_length
  smp_trans_keys_42_length smp_trans_keys_43_length smp_trans_keys_44_length
  smp_trans_keys_45_length smp_trans_keys_46_length smp_trans_keys_47_length
  smp_trans_keys_48_length smp_trans_keys_49_length smp_trans_keys_50_length
  smp_trans_keys_51_length smp_trans_keys_52_length smp_trans_keys_53_length
  smp_trans_keys_54_length smp_trans_keys_55_length smp_trans_keys_56_length
  smp_trans_keys_57_length smp_trans_keys_58_length smp_trans_keys_59_length
  smp_trans_keys_60_length smp_trans_keys_61_length smp_trans_keys_62_length
  smp_trans_keys_63_length smp_trans_keys_64_length smp_trans_keys_65_length
  smp_trans_keys_66_length smp_trans_keys_67_length smp_trans_keys_68_length
  smp_trans_keys_69_length smp_trans_keys_70_length smp_trans_keys_71_length
  smp_trans_keys_72_length smp_trans_keys_73_length smp_trans_keys_74_length
  smp_trans_keys_75_length

lemmas smp_lengths = smp_state_lengths smp_indicies_lengths smp_trans_lengths smp_trans_keys_lengths

text \<open>The elements that are read for the letter A in the first state and a space after it.\<close>

lemma smp_cond_lengths_at:
  "rd smp_cond_lengths 1 = Some 0" "rd smp_cond_lengths 7585 = Some 0"
  by (simp_all only: smp_cond_lengths_def smp_lengths rd_walk)
    (simp_all only: smp_cond_lengths_1_def smp_cond_lengths_7_def rd_walk)

lemma smp_cond_offsets_at:
  "rd smp_cond_offsets 1 = Some 0" "rd smp_cond_offsets 7585 = Some 1329"
  by (simp_all only: smp_cond_offsets_def smp_lengths rd_walk)
    (simp_all only: smp_cond_offsets_1_def smp_cond_offsets_7_def rd_walk)

lemma smp_index_offsets_at:
  "rd smp_index_offsets 1 = Some 0" "rd smp_index_offsets 7585 = Some 69059"
  by (simp_all only: smp_index_offsets_def smp_lengths rd_walk)
    (simp_all only: smp_index_offsets_1_def smp_index_offsets_7_def rd_walk)

lemma smp_indicies_at:
  "rd smp_indicies 4 = Some 3" "rd smp_indicies 69059 = Some 19"
  by (simp_all only: smp_indicies_def smp_lengths rd_walk)
    (simp_all only: smp_indicies_1_def smp_indicies_58_def rd_walk)

lemma smp_key_offsets_at:
  "rd smp_key_offsets 1 = Some 0" "rd smp_key_offsets 7585 = Some 89074"
  by (simp_all only: smp_key_offsets_def smp_lengths rd_walk)
    (simp_all only: smp_key_offsets_1_def smp_key_offsets_7_def rd_walk)

lemma smp_range_lengths_at:
  "rd smp_range_lengths 1 = Some 5" "rd smp_range_lengths 7585 = Some 5"
  by (simp_all only: smp_range_lengths_def smp_lengths rd_walk)
    (simp_all only: smp_range_lengths_1_def smp_range_lengths_7_def rd_walk)

lemma smp_single_lengths_at:
  "rd smp_single_lengths 1 = Some 19" "rd smp_single_lengths 7585 = Some 6"
  by (simp_all only: smp_single_lengths_def smp_lengths rd_walk)
    (simp_all only: smp_single_lengths_1_def smp_single_lengths_7_def rd_walk)

lemma smp_trans_actions_at:
  "rd smp_trans_actions 3 = Some 1" "rd smp_trans_actions 19 = Some 546"
  by (simp_all only: smp_trans_actions_def smp_lengths rd_walk)
    (simp_all only: smp_trans_actions_1_def rd_walk)

lemma smp_trans_keys_at:
  "rd smp_trans_keys 4 = Some 65" "rd smp_trans_keys 9 = Some 77"
  "rd smp_trans_keys 89074 = Some 32" "rd smp_trans_keys 89076 = Some 37"
  by (simp_all only: smp_trans_keys_def smp_lengths rd_walk)
    (simp_all only: smp_trans_keys_1_def smp_trans_keys_75_def rd_walk)

lemma smp_trans_targs_at:
  "rd smp_trans_targs 3 = Some 7585" "rd smp_trans_targs 19 = Some 6"
  by (simp_all only: smp_trans_targs_def smp_lengths rd_walk)
    (simp_all only: smp_trans_targs_1_def rd_walk)

lemma smp_acts_at: "(a, as) \<in> set smp_sequences \<Longrightarrow> a \<noteq> 0 \<Longrightarrow> t0_acts_at (c_machine sip_machine) a = Some as"
  by (rule acts_laid_out [OF _ smp_sequences_laid_out]) (simp_all add: sip_machine_def smp_sequences_layout)

lemma smp_acts_read: "t0_acts_at (c_machine sip_machine) 1 = Some [3]"
  "t0_acts_at (c_machine sip_machine) 546 = Some [26, 0, 27, 85]"
  by (rule smp_acts_at; simp add: smp_sequences_def)+

lemma smp_reads_A: "sip_step sip_machine s 1 65 = Some (7585, [3])"
proof -
  have "find_single smp_trans_keys 0 18 65 = Some (Some 4)"
    by (simp add: find_single.simps [of smp_trans_keys] smp_trans_keys_at)
  then show ?thesis
    using smp_acts_read by (simp add: sip_step_def cond_step_def t0_widen_def t0_step_def t0_match_def smp_fields smp_cond_lengths_at smp_cond_offsets_at
        smp_key_offsets_at smp_single_lengths_at smp_range_lengths_at smp_index_offsets_at smp_indicies_at
        smp_trans_targs_at smp_trans_actions_at)
qed

lemma smp_reads_space: "sip_step sip_machine s 7585 32 = Some (6, [26, 0, 27, 85])"
proof -
  have "find_single smp_trans_keys 89074 89079 32 = Some (Some 89074)"
    by (simp add: find_single.simps [of smp_trans_keys] smp_trans_keys_at)
  then show ?thesis
    using smp_acts_read by (simp add: sip_step_def cond_step_def t0_widen_def t0_step_def t0_match_def smp_fields smp_cond_lengths_at smp_cond_offsets_at
        smp_key_offsets_at smp_single_lengths_at smp_range_lengths_at smp_index_offsets_at smp_indicies_at
        smp_trans_targs_at smp_trans_actions_at)
qed

lemma request_actions: "sip_switch ! 26 = A_method_is method_unknown" "sip_switch ! 27 = A_method"
  "sip_switch ! 85 = A_init_ruri"
  by (simp_all add: sip_switch_def)

definition request_log :: "(sip_action \<times> sip_call option) list" where
  "request_log =
     [(A_mark, None), (A_method_is method_unknown, None), (A_data_type sip_request, Some (Data_type sip_request)),
      (A_method, Some (Method (''A '' @ [CHR 0x00]) 1 (Some method_unknown))),
      (A_init_ruri, Some (Init_component component_ruri))]"

lemma request_run:
  "\<exists>pr' h'. sip_feed sip_machine pton ntop [] [''A'', '' ''] (sip_message_parser_init letters_parser) letters_heap =
     Some (pr', h', request_log)"
  by (simp add: letters_simps smp_reads_A smp_reads_space request_actions letters_parser_def letters_heap_def request_log_def
      sip_message_parser_init_def sip_message_parser_execute_def sip_log_def Let_def msg_method_def
      schar_def)

end
