(* ===== verification/Sip_Properties.thy ===== *)
theory Sip_Properties
  imports Sip_Headers Sip_Stops Sip_Request Strtol_Number
begin

text \<open>
  The properties of the SIP message parser and of the callbacks that build the message, over any
  number of calls of \<open>execute\<close>.  Those on \<open>sip_machine\<close> are about the arrays of
  sip_message_parser.c, the others hold for whatever arrays drive the parser.
\<close>

lemma feed_says:
  assumes run: "sip_feed T pton ntop [] cs (sip_message_parser_init pr) h = Some (pr', h', L)"
    and calls: "calls_of L = B @ Data_type t # C" "t \<noteq> outbound_keepalive" "\<forall>t. Data_type t \<notin> set C"
  shows "says (parsed pr') (said C) h'"
proof -
  let ?self = "ruby_sip_parser pr"
  obtain h0 v h1 m where b: "sip_dispatch pton ntop ?self v (Data_type t) h0 = Some (h1, m)"
      "replay pton ntop ?self C (h1, m) = Some (h', parsed pr')"
    using feed_replay [OF run] unfolding calls(1) replay_calls_append
    by (auto split: option.split_asm)
  show ?thesis using says_replay [OF b(2) calls(3) says_new [OF b(1) calls(2)]] by (simp add: said_fold)
qed

text \<open>Whatever the arrays are, a message that began says what was said since.\<close>

theorem sip_message_says:
  assumes run: "sip_feed T pton ntop [] cs (sip_message_parser_init pr) h = Some (pr', h', L)"
    and calls: "calls_of L = B @ Data_type t # C" "t \<noteq> outbound_keepalive" "\<forall>t. Data_type t \<notin> set C"
  shows "\<forall>x \<in> set message_vars. rb_ivar_get (SipMessageParser_parsed pr') x h' = Some (Imm (said C x))"
  using feed_says [OF assms] by (simp add: says_def SipMessageParser_parsed_def)

theorem sip_message_says_witness:
  "\<exists>pr' h' L. sip_feed letters_machine (\<lambda>f s. (0, [])) (\<lambda>f b. None) [] letters
       (sip_message_parser_init letters_parser) letters_heap = Some (pr', h', L) \<and>
     rb_ivar_get (SipMessageParser_parsed pr') ''@via_branch'' h' = Some (Imm (Str ''mx'')) \<and>
     rb_ivar_get (SipMessageParser_parsed pr') ''@call_id'' h' = Some nil"
proof -
  obtain pr' h' where run: "sip_feed letters_machine (\<lambda>f s. (0, [])) (\<lambda>f b. None) [] letters
      (sip_message_parser_init letters_parser) letters_heap = Some (pr', h', letters_log)"
    using letters_run by blast
  let ?C = "tl (calls_of letters_log)"
  have c: "calls_of letters_log = [] @ Data_type sip_request # ?C" "\<forall>t. Data_type t \<notin> set ?C"
    by (simp_all add: letters_log_def)
  have "''@via_branch'' \<in> set message_vars" "''@call_id'' \<in> set message_vars"
    by (simp_all add: message_vars_def)
  moreover have "said ?C ''@via_branch'' = Str ''mx''" "said ?C ''@call_id'' = Qnil"
    by (simp_all add: said_def letters_log_def text_of_def)
  ultimately show ?thesis using sip_message_says [OF run c(1) _ c(2)] run by auto
qed

text \<open>
  C12.  The SIP message parser aborts nowhere but in a callback: fed a message in any pieces, the first
  one not empty, it stops without a result exactly when one of the calls it makes does not return;
  no \<open>assert\<close> fails and nothing is read outside the arrays of the machine or the buffer.  When
  it returns the message is in error, finished, or all its bytes are read.
\<close>

theorem sip_machine_stops:
  assumes "cs = [] \<or> hd cs \<noteq> []"
  shows "(sip_feed sip_machine pton ntop [] cs (sip_message_parser_init pr) h = None \<longleftrightarrow>
      replay pton ntop (ruby_sip_parser pr)
        (calls_of (sip_trace sip_machine pton ntop [] cs (sip_message_parser_init pr) h)) (h, nil) = None) \<and>
    (\<forall>pr' h' L. sip_feed sip_machine pton ntop [] cs (sip_message_parser_init pr) h = Some (pr', h', L) \<longrightarrow>
       sip_message_parser_has_error pr' \<or> sip_message_parser_is_finished pr' \<or> nread pr' = length (concat cs))"
proof -
  let ?p = "sip_message_parser_init pr"
  have "replayed pton ntop (ruby_sip_parser pr) (h, nil) [] ?p h" "within (nread ?p) ?p" "0 \<le> s_cs ?p"
      "s_cs ?p < 7688" "nread ?p = length []"
    by (simp_all add: replayed_def sip_message_parser_init_def within_def)
  from sip_trace_cases [OF this, of cs] assms show ?thesis
    using feed_replay [of sip_machine pton ntop cs pr h]
    by (auto simp: stuck_def sip_message_parser_has_error_def sip_message_parser_is_finished_def)
qed

theorem sip_machine_stops_witness:
  "\<exists>pr' h' L. sip_feed sip_machine (\<lambda>f s. (0, [])) (\<lambda>f b. None) [] [''A'', '' '']
     (sip_message_parser_init letters_parser) letters_heap = Some (pr', h', L) \<and>
     (sip_message_parser_has_error pr' \<or> sip_message_parser_is_finished pr' \<or> nread pr' = 2)"
proof -
  have "[''A'', '' ''] = [] \<or> hd [''A'', '' ''] \<noteq> []" by simp
  from sip_machine_stops [OF this, of "\<lambda>f s. (0, [])" "\<lambda>f b. None" letters_parser letters_heap]
  show ?thesis using request_run [of "\<lambda>f s. (0, [])" "\<lambda>f b. None"] by fastforce
qed

text \<open>
  C11.  However a message comes in pieces, the parser calls back for its kind first, once, and then
  for its parts; before that the store is as it was and there is no message.  A request or a response
  says what the calls since then said last: each variable taken from an element of the message has
  the value of the last call for that element, and is nil when there was none.
\<close>

theorem sip_machine_says:
  assumes run: "sip_feed sip_machine pton ntop [] cs (sip_message_parser_init pr) h = Some (pr', h', L)"
  shows "(calls_of L = [] \<and> h' = h \<and> SipMessageParser_parsed pr' = nil \<and> \<not> sip_message_parser_is_finished pr') \<or>
    (\<exists>t C. calls_of L = Data_type t # C \<and> (\<forall>u. Data_type u \<notin> set C) \<and>
       (t \<noteq> outbound_keepalive \<longrightarrow>
          (\<forall>x \<in> set message_vars. rb_ivar_get (SipMessageParser_parsed pr') x h' = Some (Imm (said C x)))))"
proof -
  have "kind_known (s_cs (sip_message_parser_init pr)) []"
    by (simp add: kind_known_def sip_message_parser_init_def smp_early_def)
  from sip_trace_kind [OF this, of pton ntop "[]" cs h]
  have k: "kind_known (s_cs pr') (calls_of L)"
    using run sip_feed_trace [OF run] by (auto simp: sip_message_parser_init_def)
  show ?thesis
  proof (cases "calls_of L = []")
    case True
    then have "h' = h" "parsed pr' = nil" using feed_replay [OF run] by simp_all
    moreover have "\<not> sip_message_parser_is_finished pr'"
      using k True by (auto simp: kind_known_def begun_def smp_early_def sip_message_parser_is_finished_def)
    ultimately show ?thesis using True by (simp add: SipMessageParser_parsed_def)
  next
    case False
    then obtain t C where C: "calls_of L = [] @ Data_type t # C" "\<forall>u. Data_type u \<notin> set C"
      using k by (auto simp: kind_known_def begun_def no_kind_def split: if_splits)
    then show ?thesis using feed_says [OF run C(1) _ C(2)] by (auto simp: says_def SipMessageParser_parsed_def)
  qed
qed

theorem sip_machine_says_witness:
  "\<exists>pr' h' L. sip_feed sip_machine (\<lambda>f s. (0, [])) (\<lambda>f b. None) [] [''A'', '' '']
       (sip_message_parser_init letters_parser) letters_heap = Some (pr', h', L) \<and>
     rb_ivar_get (SipMessageParser_parsed pr') ''@call_id'' h' = Some nil"
proof -
  obtain pr' h' where run: "sip_feed sip_machine (\<lambda>f s. (0, [])) (\<lambda>f b. None) [] [''A'', '' '']
      (sip_message_parser_init letters_parser) letters_heap = Some (pr', h', request_log)"
    using request_run by blast
  have x: "''@call_id'' \<in> set message_vars" "said (tl (calls_of request_log)) ''@call_id'' = Qnil"
    by (simp_all add: message_vars_def said_def request_log_def text_of_def)
  have "\<exists>t C. calls_of request_log = Data_type t # C \<and> t \<noteq> outbound_keepalive \<and> calls_of request_log \<noteq> []"
    by (simp add: request_log_def)
  then show ?thesis using sip_machine_says [OF run] run x by fastforce
qed

text \<open>
  C15.  What the methods for the core header fields answer after a run: the first header field
  missing, the first one that came more than once, with the number of Vias left in the message, and
  \<open>@contact\<close> only when one Contact came and it was a valid one.
\<close>

theorem sip_core_headers:
  assumes run: "sip_feed T pton ntop [] cs (sip_message_parser_init pr) h = Some (pr', h', L)"
    and calls: "calls_of L = B @ Data_type t # C" "t \<noteq> outbound_keepalive" "\<forall>t. Data_type t \<notin> set C"
  shows "SipMessageParser_has_missing_core_header pr' = missing (map fst L) \<and>
    (\<exists>h2. SipMessageParser_has_duplicated_core_header pr' h' = Some (duplicated (map fst L), h2) \<and>
       rb_ivar_get (SipMessageParser_parsed pr') ''@num_vias'' h2 =
         Some (Imm (Fix (int (count_list (map fst L) A_new_via))))) \<and>
    (\<exists>h2. SipMessageParser_post_parsing pr' h' = Some h2 \<and>
       rb_ivar_get (SipMessageParser_parsed pr') ''@contact'' h2 =
         (if count_list (map fst L) A_new_contact = 1 \<and> last_valid (map fst L)
          then rb_ivar_get (SipMessageParser_parsed pr') ''@contact'' h' else Some nil))"
proof -
  have k: "counted (map fst L) pr'" by (rule counts.run_sound [OF run])
  have "''@call_id'' \<in> set message_vars" by (simp add: message_vars_def)
  then have "rb_ivar_get (parsed pr') ''@call_id'' h' \<noteq> None"
    using feed_says [OF assms] by (simp add: says_def)
  then have set: "\<exists>h2. rb_ivar_set (parsed pr') x w h' = Some h2 \<and> rb_ivar_get (parsed pr') x h2 = Some w" for x w
    by (rule ivar_set [where x = x and w = w]) auto
  show ?thesis
    using set [of "''@num_vias''" "Imm (Fix (int (count_list (map fst L) A_new_via)))"] set [of "''@contact''" nil] k
    by (auto simp: counted_missing counted_duplicated SipMessageParser_parsed_def
        SipMessageParser_post_parsing_def counted_def)
qed

theorem sip_core_headers_witness:
  "\<exists>pr' h' L. sip_feed letters_machine (\<lambda>f s. (0, [])) (\<lambda>f b. None) [] letters
       (sip_message_parser_init letters_parser) letters_heap = Some (pr', h', L) \<and>
     SipMessageParser_has_missing_core_header pr' = Str ''To'' \<and>
     (\<exists>h2. SipMessageParser_has_duplicated_core_header pr' h' = Some (Qfalse, h2) \<and>
        rb_ivar_get (SipMessageParser_parsed pr') ''@num_vias'' h2 = Some (Imm (Fix 2)))"
proof -
  obtain pr' h' where run: "sip_feed letters_machine (\<lambda>f s. (0, [])) (\<lambda>f b. None) [] letters
      (sip_message_parser_init letters_parser) letters_heap = Some (pr', h', letters_log)"
    using letters_run by blast
  let ?C = "tl (calls_of letters_log)"
  have c: "calls_of letters_log = [] @ Data_type sip_request # ?C" "\<forall>t. Data_type t \<notin> set ?C"
    by (simp_all add: letters_log_def)
  have "missing (map fst letters_log) = Str ''To''" "duplicated (map fst letters_log) = Qfalse"
      "count_list (map fst letters_log) A_new_via = 2"
    by (simp_all add: missing_def duplicated_def letters_log_def)
  then show ?thesis using sip_core_headers [OF run c(1) _ c(2)] run by auto
qed

text \<open>
  C14.  Which calls the parser makes.  A call for a part of a Via, Call-ID, CSeq, Max-Forwards,
  Content-Length or Contact is made exactly while the first of these is read.  A call for a part of a
  URI is made exactly while a URI is asked for, those of From, To and Contact only in the first such
  field, and names its owner.  The calls of the other elements have no such condition: every From and
  To gives its tag, and the object for its URI, again, and every option tag is added.
\<close>

theorem sip_calls_first:
  assumes run: "sip_feed T pton ntop [] cs (sip_message_parser_init pr) h = Some (pr', h', L)"
    and at: "L = xs @ (a, c) # ys"
  shows "(\<forall>n. field_of a = Some n \<longrightarrow> (c \<noteq> None \<longleftrightarrow> count_list (map fst xs) n = 1)) \<and>
    (is_uri_action a \<longrightarrow>
       map_option uri_call c = map_option (\<lambda>own. Some (Some own)) (open_uri (rev (map fst xs)))) \<and>
    (\<not> is_uri_action a \<longrightarrow> (\<forall>d. c = Some d \<longrightarrow> uri_call d = None)) \<and>
    (always_calls a \<longrightarrow> c \<noteq> None)"
  using uris.run_sound(2) [OF run at] in_uri_calls sip_do_always by metis

theorem sip_calls_first_witness:
  "\<exists>pr' h' L xs a ys. sip_feed letters_machine (\<lambda>f s. (0, [])) (\<lambda>f b. None) [] letters
       (sip_message_parser_init letters_parser) letters_heap = Some (pr', h', L) \<and>
     L = xs @ (A_via_element Via_branch, None) # ys \<and> count_list (map fst xs) A_new_via \<noteq> 1"
proof -
  obtain pr' h' where run: "sip_feed letters_machine (\<lambda>f s. (0, [])) (\<lambda>f b. None) [] letters
      (sip_message_parser_init letters_parser) letters_heap = Some (pr', h', letters_log)"
    using letters_run by blast
  have at: "letters_log = take 6 letters_log @ (A_via_element Via_branch, None) # drop 7 letters_log"
    by (simp add: letters_log_def)
  have "count_list (map fst (take 6 letters_log)) A_new_via \<noteq> 1"
    using sip_calls_first [OF run at] by simp
  then show ?thesis using run at by blast
qed

text \<open>
  C34.  The number of a CSeq and a Content-Length are read by \<open>strtol\<close> with base 0: they are decimal
  when the first digit is no zero, and octal up to the first digit that is none when it is, though
  SIP allows leading zeros in decimal numbers.
\<close>

theorem sip_numbers_octal:
  assumes m: "rb_ivar_get m y h \<noteq> None"
    and w: "list_all is_digit w" "w \<noteq> []" "length w \<le> 10" and c: "no_digit c"
  shows "(\<exists>h'. msg_cseq_number m (w @ c # rest) (length w) h = Some h' \<and>
      rb_ivar_get m ''@cseq'' h' = Some (Imm (Fix (number_value w)))) \<and>
    (\<exists>h'. msg_content_length m (w @ c # rest) (length w) h = Some h' \<and>
      rb_ivar_get m ''@content_length'' h' = Some (Imm (Fix (number_value w)))) \<and>
    (hd w \<noteq> CHR ''0'' \<longrightarrow> number_value w = int (dec_val w))"
proof -
  have b: "0 \<le> number_value w" "number_value w < 10 ^ length w" by (rule number_value_bounds [OF w(1)])+
  have "(10 :: int) ^ length w \<le> 10 ^ 10" using w(3) by (intro power_increasing) simp_all
  then have "LONG2FIX (strtol (w @ c # rest) 0) = Fix (number_value w)"
    using strtol_number [OF w(1,2) _ c] w(3) b by (simp add: LONG2FIX_def)
  moreover have set: "\<exists>h2. rb_ivar_set m x v h = Some h2 \<and> rb_ivar_get m x h2 = Some v" for x v
    by (rule ivar_set [OF m, where x = x and w = v]) auto
  ultimately show ?thesis
    using number_value_decimal [OF w(1)] by (auto simp: msg_cseq_number_def msg_content_length_def)
qed

theorem sip_numbers_octal_witness:
  "(\<exists>h'. msg_cseq_number (Ref 0) (''0100'' @ CHR '' '' # ''INVITE'') (length ''0100'') letters_heap = Some h' \<and>
     rb_ivar_get (Ref 0) ''@cseq'' h' = Some (Imm (Fix 64)))"
proof -
  have m: "rb_ivar_get (Ref 0) ''@cseq'' letters_heap \<noteq> None"
    by (simp add: letters_heap_def rb_ivar_get_def deref_def)
  have "list_all is_digit ''0100''" "''0100'' \<noteq> []" "length ''0100'' \<le> 10" "no_digit (CHR '' '')"
    by (simp_all add: is_digit_def no_digit_def c_digit_def schar_def)
  from sip_numbers_octal [OF m this, of "''INVITE''"] show ?thesis
    by (simp add: number_value_def number_base_def c_digit_def schar_def)
qed

end
