(* ===== verification/Sip_Uri.thy ===== *)
theory Sip_Uri
  imports Sip_Parser
begin

text \<open>
  The C of ext/sip_parser/sip_uri_parser.rl as generated in sip_uri_parser.c, and the class method
  \<open>OverSIP::SIP::MessageParser.parse_uri\<close> of sip_parser_ruby.c that runs it.  The callbacks are
  those of the message parser; the arrays are a parameter \<open>T\<close>, the generated ones are
  \<open>sip_uri_machine\<close> of \<open>Sip_Uri_Machine\<close>.
\<close>

subsection \<open>The struct\<close>

record sip_uri_parser =
  u_mark :: nat
  u_uri_start :: nat
  u_param_key_start :: nat
  u_param_key_len :: nat
  u_param_value_start :: nat
  u_param_value_len :: nat
  u_scheme :: "sip_uri_scheme option"
  u_display_name_quoted :: bool
  u_parsed :: rval

definition sip_uri_parser_reset :: "sip_uri_parser \<Rightarrow> sip_uri_parser" where
  "sip_uri_parser_reset pr = pr
     \<lparr>u_mark := 0, u_uri_start := 0, u_param_key_start := 0, u_param_value_start := 0,
      u_scheme := None, u_display_name_quoted := False\<rparr>"

subsection \<open>The actions\<close>

datatype (plugins only: code size) uri_action =
    U_mark
  | U_is sip_uri_scheme
  | U_scheme
  | U_user
  | U_host host_type
  | U_port
  | U_start_param_key
  | U_param_key_len
  | U_start_param_value
  | U_param_value_len
  | U_write_param
  | U_headers
  | U_known_param uri_param_name "sip_transport option"
  | U_has_param uri_param_name
  | U_display_name
  | U_display_name_quoted
  | U_start_uri
  | U_write_uri
  | U_done

definition uri_switch :: "uri_action list" where
  "uri_switch =
     [U_mark, U_is uri_scheme_sip, U_is uri_scheme_sips, U_is uri_scheme_tel, U_is uri_scheme_unknown,
      U_scheme, U_user, U_host host_type_domain, U_host host_type_ipv4, U_host host_type_ipv6, U_port,
      U_start_param_key, U_param_key_len, U_start_param_value, U_param_value_len, U_write_param,
      U_headers, U_known_param uri_tel_phone_context None,
      U_known_param uri_param_transport (Some transport_udp),
      U_known_param uri_param_transport (Some transport_tcp),
      U_known_param uri_param_transport (Some transport_tls),
      U_known_param uri_param_transport (Some transport_sctp),
      U_known_param uri_param_transport (Some transport_ws),
      U_known_param uri_param_transport (Some transport_wss),
      U_known_param uri_param_transport (Some transport_unknown), U_has_param uri_param_lr,
      U_has_param uri_param_ob, U_known_param uri_param_ovid None, U_display_name,
      U_display_name_quoted, U_start_uri, U_write_uri, U_done]"

text \<open>
  What an action does at position \<open>p\<close>, as in the message parser.  The owner that the callbacks get
  is \<open>parsed\<close> itself, the address of an object, which is none of the numbers of \<open>uri_owner\<close>.
\<close>

type_synonym uri_effect = "sip_call option \<times> sip_uri_parser \<times> bool"

abbreviation u_set :: "sip_uri_parser \<Rightarrow> uri_effect" where
  "u_set pr \<equiv> (None, pr, False)"

abbreviation u_call :: "sip_call \<Rightarrow> sip_uri_parser \<Rightarrow> uri_effect" where
  "u_call c pr \<equiv> (Some c, pr, False)"

abbreviation u_marked :: "string \<Rightarrow> nat \<Rightarrow> sip_uri_parser \<Rightarrow> (string \<Rightarrow> nat \<Rightarrow> 'c) \<Rightarrow> 'c" where
  "u_marked buffer p pr C \<equiv> C (drop (u_mark pr) buffer) (LEN (u_mark pr) p)"

primrec uri_do :: "string \<Rightarrow> nat \<Rightarrow> uri_action \<Rightarrow> sip_uri_parser \<Rightarrow> uri_effect" where
  "uri_do buffer p U_mark pr = u_set (pr\<lparr>u_mark := p\<rparr>)"
| "uri_do buffer p (U_is s) pr = u_set (pr\<lparr>u_scheme := Some s\<rparr>)"
| "uri_do buffer p U_scheme pr = u_call (u_marked buffer p pr (Uri_scheme None) (u_scheme pr)) pr"
| "uri_do buffer p U_user pr = u_call (u_marked buffer p pr (Uri_user None) (u_scheme pr)) pr"
| "uri_do buffer p (U_host t) pr = u_call (u_marked buffer p pr (Uri_host None) t) pr"
| "uri_do buffer p U_port pr = u_call (u_marked buffer p pr (Uri_port None)) pr"
| "uri_do buffer p U_start_param_key pr = u_set (pr\<lparr>u_param_key_start := p\<rparr>)"
| "uri_do buffer p U_param_key_len pr = u_set
     (pr\<lparr>u_param_key_len := LEN (u_param_key_start pr) p, u_param_value_len := 0\<rparr>)"
| "uri_do buffer p U_start_param_value pr = u_set (pr\<lparr>u_param_value_start := p\<rparr>)"
| "uri_do buffer p U_param_value_len pr = u_set (pr\<lparr>u_param_value_len := LEN (u_param_value_start pr) p\<rparr>)"
| "uri_do buffer p U_write_param pr = u_call
     (Uri_param None (drop (u_param_key_start pr) buffer) (u_param_key_len pr)
        (drop (u_param_value_start pr) buffer) (u_param_value_len pr)) pr"
| "uri_do buffer p U_headers pr = u_call (u_marked buffer p pr (Uri_headers None)) pr"
| "uri_do buffer p (U_known_param k t) pr = u_call (u_marked buffer p pr (Uri_known_param None k) t) pr"
| "uri_do buffer p (U_has_param k) pr = u_call (Uri_has_param None k) pr"
| "uri_do buffer p U_display_name pr = u_call
     (if \<not> u_display_name_quoted pr then u_marked buffer p pr (Uri_display_name None)
      else Uri_display_name None (drop (u_mark pr + 1) buffer)
             (nat ((int (LEN (u_mark pr) p) - 2) mod 2 ^ 64))) pr"
| "uri_do buffer p U_display_name_quoted pr = u_set (pr\<lparr>u_display_name_quoted := True\<rparr>)"
| "uri_do buffer p U_start_uri pr = u_set (pr\<lparr>u_uri_start := p\<rparr>)"
| "uri_do buffer p U_write_uri pr = u_call
     (Uri_full None (drop (u_uri_start pr) buffer) (LEN (u_uri_start pr) p)) pr"
| "uri_do buffer p U_done pr = (None, pr, True)"

text \<open>An action by its number.  None of these callbacks changes \<open>parsed\<close>.\<close>

definition uri_act ::
  "pton \<Rightarrow> ntop \<Rightarrow> string \<Rightarrow> int \<Rightarrow> nat \<Rightarrow> sip_uri_parser \<times> heap \<Rightarrow>
   ((sip_uri_parser \<times> heap) \<times> bool) option" where
  "uri_act pton ntop buffer a p s =
     (case s of (pr, h) \<Rightarrow>
        if 0 \<le> a \<and> nat a < length uri_switch
        then
          (case uri_do buffer p (uri_switch ! nat a) pr of
             (None, pr', out) \<Rightarrow> Some ((pr', h), out)
           | (Some c, pr', out) \<Rightarrow>
               map_option (\<lambda>(h', v). ((pr', h'), out)) (sip_dispatch pton ntop nil (u_parsed pr) c h))
        else Some (s, False))"

subsection \<open>The loop\<close>

text \<open>
  The grammar asks of a character whether a URI is parsed (\<open>allow_name_addr\<close> is 0), whether a name
  with an address is (it is 1), or both.
\<close>

definition uri_widen :: "int \<Rightarrow> int \<Rightarrow> int \<Rightarrow> int" where
  "uri_widen allow_name_addr space c =
     (if space = 0 then 128 + (c + 128) + (if allow_name_addr = 0 then 256 else 0)
      else if space = 1 then 640 + (c + 128) + (if allow_name_addr = 1 then 256 else 0)
      else if space = 2 then
        1152 + (c + 128) + (if allow_name_addr = 0 then 256 else 0) + (if allow_name_addr = 1 then 512 else 0)
      else c)"

definition uri_step ::
  "rgl_cond_tables \<Rightarrow> int \<Rightarrow> sip_uri_parser \<times> heap \<Rightarrow> int \<Rightarrow> int \<Rightarrow> (int \<times> int list) option" where
  "uri_step T allow_name_addr s cs c = cond_step T (uri_widen allow_name_addr) cs c"

definition sip_uri_parser_execute ::
  "rgl_cond_tables \<Rightarrow> pton \<Rightarrow> ntop \<Rightarrow> sip_uri_parser \<Rightarrow> heap \<Rightarrow> string \<Rightarrow> nat \<Rightarrow> rval \<Rightarrow> int \<Rightarrow>
   (int \<times> sip_uri_parser \<times> heap) option" where
  "sip_uri_parser_execute T pton ntop pr h buffer len new allow_name_addr = do {
     (cs, p, pr, h) \<leftarrow>
       t0_exec (uri_step T allow_name_addr) (uri_act pton ntop buffer) 1 0 (take len buffer)
         (sip_uri_parser_reset (pr\<lparr>u_parsed := new\<rparr>), h);
     Some (if len \<noteq> p then 1 else 0, sip_uri_parser_reset pr, h)
   }"

subsection \<open>The class method\<close>

datatype uri_raise = Uri_TypeError | Uri_ArgumentError

datatype uri_ending =
    Uri_raises uri_raise
  | Uri_aborts
  | Uri_returns rval sip_uri_parser heap

text \<open>
  \<open>pr\<close> is the global parser, allocated by the first call and never cleared.  \<open>StringValueCStr\<close>
  raises for a String with a null character.
\<close>

definition SipMessageParser_Class_parse_uri ::
  "rgl_cond_tables \<Rightarrow> pton \<Rightarrow> ntop \<Rightarrow> sip_uri_parser \<Rightarrow> ruby_value \<Rightarrow> ruby_value \<Rightarrow> heap \<Rightarrow> uri_ending" where
  "SipMessageParser_Class_parse_uri T pton ntop pr text allow_name_addr h =
     (case text of
        Str s \<Rightarrow>
          if CHR 0x00 \<in> set s then Uri_raises Uri_ArgumentError
          else
            (case rb_obj_alloc (if allow_name_addr = Qtrue then cNameAddr else cUri) h of
               (h1, new) \<Rightarrow>
                 (case sip_uri_parser_execute T pton ntop pr h1 (s @ [CHR 0x00]) (length s + 1) new
                         (if allow_name_addr = Qtrue then 1 else 0) of
                    None \<Rightarrow> Uri_aborts
                  | Some (r, pr', h') \<Rightarrow> Uri_returns (if r = 0 then new else Imm Qfalse) pr' h'))
      | _ \<Rightarrow> Uri_raises Uri_TypeError)"

end
