(* ===== verification/Sip_Uri_Run.thy ===== *)
theory Sip_Uri_Run
  imports Sip_Uri Sip_Values
begin

text \<open>
  What the URI parser builds, whatever the arrays of its machine are: one new object, and a Hash for
  the parameters when there are any.  Their contents are a function of the calls it makes, and nothing
  else in the store changes.
\<close>

subsection \<open>The calls of a run\<close>

fun uri_entry :: "string \<Rightarrow> int \<times> nat \<times> sip_uri_parser \<times> heap \<Rightarrow> sip_call list" where
  "uri_entry buffer (a, p, pr, h) =
     (if 0 \<le> a \<and> nat a < length uri_switch
      then (case fst (uri_do buffer p (uri_switch ! nat a) pr) of None \<Rightarrow> [] | Some c \<Rightarrow> [c]) else [])"

definition uri_acts_calls ::
  "pton \<Rightarrow> ntop \<Rightarrow> string \<Rightarrow> nat \<Rightarrow> int list \<Rightarrow> sip_uri_parser \<Rightarrow> heap \<Rightarrow> sip_call list" where
  "uri_acts_calls pton ntop buffer p as pr h =
     concat (map (uri_entry buffer) (t0_acts_path (uri_act pton ntop buffer) p as (pr, h)))"

definition uri_path_calls ::
  "(sip_uri_parser \<times> heap \<Rightarrow> int \<Rightarrow> int \<Rightarrow> (int \<times> int list) option) \<Rightarrow> pton \<Rightarrow> ntop \<Rightarrow> string \<Rightarrow>
   int \<Rightarrow> nat \<Rightarrow> string \<Rightarrow> sip_uri_parser \<Rightarrow> heap \<Rightarrow> sip_call list" where
  "uri_path_calls step pton ntop buffer cs p w pr h =
     concat (map (uri_entry buffer) (t0_path step (uri_act pton ntop buffer) cs p w (pr, h)))"

definition uri_calls ::
  "rgl_cond_tables \<Rightarrow> pton \<Rightarrow> ntop \<Rightarrow> sip_uri_parser \<Rightarrow> heap \<Rightarrow> string \<Rightarrow> nat \<Rightarrow> rval \<Rightarrow> int \<Rightarrow> sip_call list" where
  "uri_calls T pton ntop pr h buffer len new allow_name_addr =
     uri_path_calls (uri_step T allow_name_addr) pton ntop buffer 1 0 (take len buffer)
       (sip_uri_parser_reset (pr\<lparr>u_parsed := new\<rparr>)) h"

text \<open>The calls a URI is made of, all of them for \<open>parsed\<close> itself.\<close>

definition own_call :: "sip_call \<Rightarrow> bool" where
  "own_call c \<longleftrightarrow>
     (case c of
        Uri_scheme own at n s \<Rightarrow> own = None | Uri_full own at n \<Rightarrow> own = None
      | Uri_user own at n s \<Rightarrow> own = None | Uri_host own at n t \<Rightarrow> own = None
      | Uri_port own at n \<Rightarrow> own = None | Uri_param own k kn w wn \<Rightarrow> own = None
      | Uri_known_param own p at n t \<Rightarrow> own = None | Uri_has_param own p \<Rightarrow> own = None
      | Uri_headers own at n \<Rightarrow> own = None | Uri_display_name own at n \<Rightarrow> own = None
      | _ \<Rightarrow> False)"

lemma uri_do_own: "uri_do buffer p a pr = (c, pr', out) \<Longrightarrow>
  u_parsed pr' = u_parsed pr \<and> (\<forall>d. c = Some d \<longrightarrow> own_call d)"
  by (cases a) (auto simp: own_call_def)

lemma own_call_parsed: "own_call c \<Longrightarrow> sip_dispatch pton ntop self v c h = Some (h', v') \<Longrightarrow> v' = v"
  by (cases c) (auto simp: own_call_def)

lemma own_replay_parsed:
  "replay pton ntop self C (h, v) = Some (h', v') \<Longrightarrow> list_all own_call C \<Longrightarrow> v' = v"
  by (induction C arbitrary: h v) (auto split: option.splits dest!: own_call_parsed)

text \<open>One action, then the actions of a transition, then the loop: the store is what the calls make it.\<close>

definition after :: "pton \<Rightarrow> ntop \<Rightarrow> heap \<times> rval \<Rightarrow> sip_call list \<Rightarrow> sip_uri_parser \<Rightarrow> heap \<Rightarrow> bool" where
  "after pton ntop s C pr h \<longleftrightarrow> replay pton ntop nil C s = Some (h, u_parsed pr) \<and> list_all own_call C"

lemma uri_act_after:
  assumes "after pton ntop s C pr h"
  shows "(\<exists>pr' h' out. uri_act pton ntop buffer a p (pr, h) = Some ((pr', h'), out) \<and>
      after pton ntop s (C @ uri_entry buffer (a, p, pr, h)) pr' h') \<or>
    (uri_act pton ntop buffer a p (pr, h) = None \<and>
     replay pton ntop nil (C @ uri_entry buffer (a, p, pr, h)) s = None)"
proof (cases "0 \<le> a \<and> nat a < length uri_switch")
  case True
  obtain c pr1 out where d: "uri_do buffer p (uri_switch ! nat a) pr = (c, pr1, out)"
    by (cases "uri_do buffer p (uri_switch ! nat a) pr")
  note o = uri_do_own [OF d]
  show ?thesis
  proof (cases c)
    case None
    then show ?thesis using True d o assms by (simp add: uri_act_def after_def)
  next
    case (Some x)
    then have x: "own_call x" using o by simp
    then show ?thesis using True d o assms Some own_call_parsed [OF x]
      by (cases "sip_dispatch pton ntop nil (u_parsed pr) x h")
        (auto simp: uri_act_def after_def replay_calls_append)
  qed
next
  case False
  then show ?thesis using assms by (auto simp: uri_act_def)
qed

lemma uri_acts_after:
  assumes "after pton ntop s C pr h"
  shows "(\<exists>pr' h' out. t0_acts (uri_act pton ntop buffer) p as (pr, h) = Some ((pr', h'), out) \<and>
      after pton ntop s (C @ uri_acts_calls pton ntop buffer p as pr h) pr' h') \<or>
    (t0_acts (uri_act pton ntop buffer) p as (pr, h) = None \<and> replay pton ntop nil (C @ uri_acts_calls pton ntop buffer p as pr h) s = None)"
  using assms
proof (induction as arbitrary: C pr h)
  case Nil
  then show ?case by (auto simp: uri_acts_calls_def)
next
  case (Cons a as)
  from uri_act_after [OF Cons.prems, of buffer a p] show ?case
  proof (elim disjE exE conjE)
    fix pr1 h1 out
    assume st: "uri_act pton ntop buffer a p (pr, h) = Some ((pr1, h1), out)"
      "after pton ntop s (C @ uri_entry buffer (a, p, pr, h)) pr1 h1"
    show ?case
    proof (cases out)
      case True
      then show ?thesis using st by (auto simp: uri_acts_calls_def simp del: uri_entry.simps)
    next
      case False
      then show ?thesis using Cons.IH [OF st(2)] st(1) by (simp add: uri_acts_calls_def del: uri_entry.simps)
    qed
  next
    assume "uri_act pton ntop buffer a p (pr, h) = None"
      "replay pton ntop nil (C @ uri_entry buffer (a, p, pr, h)) s = None"
    then show ?case by (simp add: uri_acts_calls_def del: uri_entry.simps)
  qed
qed

text \<open>The loop leaves nothing undone as long as the steps read inside the arrays.\<close>

lemma uri_exec_after:
  assumes "after pton ntop s C pr h" and "0 \<le> cs" and "cs < n"
    and step: "\<forall>d cs c. 0 \<le> cs \<longrightarrow> cs < n \<longrightarrow> (\<exists>q as. step d cs c = Some (q, as) \<and> 0 \<le> q \<and> q < n)"
  shows "(\<exists>cs' q pr' h'. t0_exec step (uri_act pton ntop buffer) cs p w (pr, h) = Some (cs', q, pr', h') \<and>
      after pton ntop s (C @ uri_path_calls step pton ntop buffer cs p w pr h) pr' h') \<or>
    (t0_exec step (uri_act pton ntop buffer) cs p w (pr, h) = None \<and>
     replay pton ntop nil (C @ uri_path_calls step pton ntop buffer cs p w pr h) s = None)"
  using assms(1-3)
proof (induction w arbitrary: C cs p pr h)
  case (Cons c w)
  show ?case
  proof (cases "cs = 0")
    case False
    obtain q as where st: "step (pr, h) cs (schar c) = Some (q, as)" "0 \<le> q" "q < n"
      using step Cons.prems(2,3) by blast
    from uri_acts_after [OF Cons.prems(1), of buffer p as] show ?thesis
    proof (elim disjE exE conjE)
      fix pr1 h1 out
      assume ac: "t0_acts (uri_act pton ntop buffer) p as (pr, h) = Some ((pr1, h1), out)"
        "after pton ntop s
           (C @ uri_acts_calls pton ntop buffer p as pr h) pr1 h1"
      show ?thesis
      proof (cases "out \<or> q = 0")
        case True
        then show ?thesis using ac st False by (auto simp: uri_path_calls_def uri_acts_calls_def)
      next
        case go: False
        then show ?thesis using Cons.IH [OF ac(2) st(2,3), of "p + 1"] ac(1) st False by (simp add: uri_path_calls_def uri_acts_calls_def)
      qed
    next
      assume "t0_acts (uri_act pton ntop buffer) p as (pr, h) = None"
        "replay pton ntop nil
           (C @ uri_acts_calls pton ntop buffer p as pr h) s = None"
      then show ?thesis using st False by (simp add: uri_path_calls_def uri_acts_calls_def)
    qed
  qed (use Cons in \<open>simp add: uri_path_calls_def uri_acts_calls_def\<close>)
qed (simp add: uri_path_calls_def uri_acts_calls_def)

text \<open>Where the loop ends, whatever the steps are.\<close>

lemma uri_exec_replay:
  assumes "after pton ntop s C pr h"
    and "t0_exec step (uri_act pton ntop buffer) cs p w (pr, h) = Some (cs', q, pr', h')"
  shows "after pton ntop s
    (C @ uri_path_calls step pton ntop buffer cs p w pr h) pr' h'"
  using assms
proof (induction w arbitrary: C cs p pr h)
  case (Cons c w)
  show ?case
  proof (cases "cs = 0")
    case False
    obtain cs1 as where st: "step (pr, h) cs (schar c) = Some (cs1, as)"
      using Cons.prems(2) False by (auto split: option.splits)
    obtain pr1 h1 out where ac: "t0_acts (uri_act pton ntop buffer) p as (pr, h) = Some ((pr1, h1), out)"
      using Cons.prems(2) False st by (auto split: option.splits)
    have a: "after pton ntop s
        (C @ uri_acts_calls pton ntop buffer p as pr h) pr1 h1"
      using uri_acts_after [OF Cons.prems(1), of buffer p as] ac by simp
    show ?thesis
    proof (cases "out \<or> cs1 = 0")
      case True
      then show ?thesis using Cons.prems(2) False st ac a
        by (auto simp: uri_path_calls_def uri_acts_calls_def split: if_splits)
    next
      case go: False
      then have "t0_exec step (uri_act pton ntop buffer) cs1 (p + 1) w (pr1, h1) = Some (cs', q, pr', h')"
        using Cons.prems(2) False st ac by simp
      from Cons.IH [OF a this] show ?thesis using False st ac go
        by (simp add: uri_path_calls_def uri_acts_calls_def)
    qed
  qed (use Cons.prems in \<open>simp add: uri_path_calls_def\<close>)
qed (simp add: uri_path_calls_def)

lemma uri_execute_replay:
  assumes "sip_uri_parser_execute T pton ntop pr h buffer len new allow = Some (r, pr', h')"
  shows "replay pton ntop nil (uri_calls T pton ntop pr h buffer len new allow) (h, new) = Some (h', new) \<and>
    list_all own_call (uri_calls T pton ntop pr h buffer len new allow)"
proof -
  let ?pr = "sip_uri_parser_reset (pr\<lparr>u_parsed := new\<rparr>)"
  obtain cs q pr1 where ex: "t0_exec (uri_step T allow) (uri_act pton ntop buffer) 1 0 (take len buffer) (?pr, h) =
      Some (cs, q, pr1, h')"
    using assms by (auto simp: sip_uri_parser_execute_def bind_eq_Some_conv)
  have p: "after pton ntop (h, new) [] ?pr h" by (simp add: after_def sip_uri_parser_reset_def)
  from uri_exec_replay [OF this ex]
  have a: "after pton ntop (h, new) (uri_calls T pton ntop pr h buffer len new allow) pr1 h'"
    by (simp add: uri_calls_def)
  then have "replay pton ntop nil (uri_calls T pton ntop pr h buffer len new allow) (h, new) = Some (h', u_parsed pr1)"
    "list_all own_call (uri_calls T pton ntop pr h buffer len new allow)"
    by (simp_all add: after_def)
  moreover from this have "u_parsed pr1 = new" using own_replay_parsed by blast
  ultimately show ?thesis by simp
qed

subsection \<open>The values\<close>

definition or_nil :: "ruby_value option \<Rightarrow> ruby_value" where
  "or_nil v = (case v of Some w \<Rightarrow> w | None \<Rightarrow> Qnil)"

definition scheme_value :: "string \<Rightarrow> sip_uri_scheme option \<Rightarrow> ruby_value" where
  "scheme_value text s =
     (case s of
        Some uri_scheme_sip \<Rightarrow> Sym ''sip''
      | Some uri_scheme_sips \<Rightarrow> Sym ''sips''
      | Some uri_scheme_tel \<Rightarrow> Sym ''tel''
      | _ \<Rightarrow> Str (my_rb_str_downcase text))"

definition user_value :: "string \<Rightarrow> sip_uri_scheme option \<Rightarrow> ruby_value" where
  "user_value text s =
     or_nil (map_option Str
       (if s = Some uri_scheme_tel then my_rb_str_tel_number_clean text else my_rb_str_hex_unescape text))"

text \<open>A name in lower case, without the dot that may end it; an IPv6 reference normalized.\<close>

definition name_value :: "string \<Rightarrow> nat \<Rightarrow> ruby_value" where
  "name_value at n = or_nil (map_option (\<lambda>w. Str (my_rb_str_downcase w)) (host_chars at n))"

definition host_value :: "pton \<Rightarrow> ntop \<Rightarrow> string \<Rightarrow> nat \<Rightarrow> host_type \<Rightarrow> ruby_value" where
  "host_value pton ntop at n t =
     (if t = host_type_ipv6
      then (case utils_normalize_ipv6 pton ntop (name_value at n) False of Inl e \<Rightarrow> Qnil | Inr v \<Rightarrow> v)
      else name_value at n)"

fun known_param_value ::
  "uri_param_name \<Rightarrow> string \<Rightarrow> nat \<Rightarrow> sip_transport option \<Rightarrow> (string \<times> ruby_value) list" where
  "known_param_value uri_param_transport at n t = [(''@transport_param'', or_nil (transport_value t at n))]"
| "known_param_value uri_param_ovid at n t = [(''@ovid_param'', text_of at n)]"
| "known_param_value uri_tel_phone_context at n t =
     (if n = 0 then [] else [(''@phone_context_param'', name_value at n)])"
| "known_param_value _ at n t = []"

fun uri_values :: "pton \<Rightarrow> ntop \<Rightarrow> sip_call \<Rightarrow> (string \<times> ruby_value) list" where
  "uri_values pton ntop (Uri_scheme own at n s) = [(''@scheme'', scheme_value (take n at) s)]"
| "uri_values pton ntop (Uri_full own at n) = [(''@uri'', text_of at n)]"
| "uri_values pton ntop (Uri_user own at n s) = [(''@user'', user_value (take n at) s)]"
| "uri_values pton ntop (Uri_host own at n t) =
     [(''@host'', host_value pton ntop at n t),
      (''@host_type'', Sym (case t of host_type_domain \<Rightarrow> ''domain'' | host_type_ipv4 \<Rightarrow> ''ipv4''
                            | host_type_ipv6 \<Rightarrow> ''ipv6_reference''))]"
| "uri_values pton ntop (Uri_port own at n) = [(''@port'', decimal_of at n)]"
| "uri_values pton ntop (Uri_known_param own p at n t) = known_param_value p at n t"
| "uri_values pton ntop (Uri_has_param own p) =
     [(if p = uri_param_lr then ''@lr_param'' else ''@ob_param'', Qtrue)]"
| "uri_values pton ntop (Uri_headers own at n) = [(''@headers'', text_of at n)]"
| "uri_values pton ntop (Uri_display_name own at n) = (if n = 0 then [] else [(''@display_name'', text_of at n)])"
| "uri_values pton ntop c = []"

definition uri_told :: "pton \<Rightarrow> ntop \<Rightarrow> sip_call \<Rightarrow> (string \<Rightarrow> ruby_value) \<Rightarrow> string \<Rightarrow> ruby_value" where
  "uri_told pton ntop c f = fold (\<lambda>(x, v) f. f(x := v)) (uri_values pton ntop c) f"

text \<open>A variable has the last value it got and is nil before.\<close>

definition uri_said :: "pton \<Rightarrow> ntop \<Rightarrow> sip_call list \<Rightarrow> string \<Rightarrow> ruby_value" where
  "uri_said pton ntop C = fold (uri_told pton ntop) C (\<lambda>x. Qnil)"

text \<open>The parameters, when there are any, in the order in which their names came first.\<close>

fun param_told :: "sip_call \<Rightarrow> (ruby_value \<times> rval) list option \<Rightarrow> (ruby_value \<times> rval) list option" where
  "param_told (Uri_param own k kn w wn) kvs =
     Some (assoc_set (Str (my_rb_str_downcase (take kn k))) (Imm (if 0 < wn then text_of w wn else Qnil))
       (case kvs of None \<Rightarrow> [] | Some l \<Rightarrow> l))"
| "param_told c kvs = kvs"

definition params_said :: "sip_call list \<Rightarrow> (ruby_value \<times> rval) list option" where
  "params_said C = fold param_told C None"

subsection \<open>The object\<close>

definition ivar_of :: "robj \<Rightarrow> string \<Rightarrow> rval" where
  "ivar_of ob x = (case ivars ob x of None \<Rightarrow> nil | Some w \<Rightarrow> w)"

text \<open>
  The store \<open>h\<close> is \<open>h0\<close> with an instance of \<open>c\<close> after it that has the values \<open>f\<close>, and a Hash
  after that when there are parameters.
\<close>

definition made ::
  "heap \<Rightarrow> string \<Rightarrow> (string \<Rightarrow> ruby_value) \<Rightarrow> (ruby_value \<times> rval) list option \<Rightarrow> heap \<Rightarrow> bool" where
  "made h0 c f kvs h \<longleftrightarrow>
     (\<exists>ob. klass ob = c \<and> body ob = Instance \<and> (\<forall>x. x \<noteq> ''@params'' \<longrightarrow> ivar_of ob x = Imm (f x)) \<and>
        (case kvs of
           None \<Rightarrow> h = h0 @ [ob] \<and> ivar_of ob ''@params'' = nil
         | Some l \<Rightarrow>
             \<exists>hb. h = h0 @ [ob, hb] \<and> klass hb = ''Hash'' \<and> body hb = HashB l \<and>
               ivar_of ob ''@params'' = Ref (length h0 + 1)))"

lemma made_new: "rb_obj_alloc c h0 = (h, v) \<Longrightarrow> v = Ref (length h0) \<and> made h0 c (\<lambda>x. Qnil) None h"
  by (auto simp: rb_new_def made_def new_robj_def ivar_of_def)

lemma made_split:
  assumes "made h0 c f kvs h"
  obtains ob obs where "h = h0 @ ob # obs" "deref (Ref (length h0)) h = Some ob"
  using assms by (auto simp: made_def deref_def split: option.splits)

lemma set_here: "rb_ivar_set (Ref (length h0)) x w (h0 @ ob # obs) =
  Some (h0 @ ob\<lparr>ivars := (ivars ob)(x \<mapsto> w)\<rparr> # obs)"
  by (simp add: rb_ivar_set_def deref_def store_def)

lemma made_set:
  assumes "made h0 c f kvs h" and "rb_ivar_set (Ref (length h0)) x (Imm v) h = Some h'" and "x \<noteq> ''@params''"
  shows "made h0 c (f(x := v)) kvs h'"
proof -
  obtain ob obs where h: "h = h0 @ ob # obs" by (rule made_split [OF assms(1)])
  let ?ob = "ob\<lparr>ivars := (ivars ob)(x \<mapsto> Imm v)\<rparr>"
  have "h' = h0 @ ?ob # obs" using assms(2) by (simp add: h set_here)
  moreover have "ivar_of ?ob y = (if y = x then Imm v else ivar_of ob y)" for y by (simp add: ivar_of_def)
  ultimately show ?thesis using assms(1,3) h
    by (cases kvs) (force simp: made_def)+
qed

lemma made_in_uri:
  assumes "made h0 c f kvs h" and "set_in_uri x (Ref (length h0)) None v h = Some h'" and "x \<noteq> ''@params''"
  shows "made h0 c (f(x := v)) kvs h'"
  using made_set [OF assms(1) _ assms(3)] assms(2) by (simp add: set_in_uri_def get_uri_object_def)

lemma made_param:
  assumes m: "made h0 c f kvs h" and p: "uri_param (Ref (length h0)) None k kn w wn h = Some h'"
  shows "made h0 c f (param_told (Uri_param None k kn w wn) kvs) h'"
proof -
  obtain ob obs where h: "h = h0 @ ob # obs" and d: "deref (Ref (length h0)) h = Some ob" by (rule made_split [OF m])
  have aset: "param_aset ''@params'' (Ref (length h0)) k kn w wn h = Some h'"
    using p by (simp add: uri_param_def get_uri_object_def)
  have key: "chars k kn = Some (take kn k)" "0 < wn \<longrightarrow> chars w wn = Some (take wn w)"
    using aset by (auto simp: param_aset_def chars_def bind_eq_Some_conv split: if_splits prod.splits)
  have get: "rb_ivar_get (Ref (length h0)) ''@params'' h = Some (ivar_of ob ''@params'')"
    using d by (simp add: rb_ivar_get_def ivar_of_def)
  show ?thesis
  proof (cases kvs)
    case None
    let ?ob = "ob\<lparr>ivars := (ivars ob)(''@params'' \<mapsto> Ref (length h0 + 1))\<rparr>"
    have ob: "h = h0 @ [ob]" "ivar_of ob ''@params'' = nil" "klass ob = c" "body ob = Instance"
        "\<forall>x. x \<noteq> ''@params'' \<longrightarrow> ivar_of ob x = Imm (f x)"
      using m None h by (auto simp: made_def)
    have "h' = h0 @ [?ob, (new_robj ''Hash'' (HashB []))\<lparr>body := HashB
        (assoc_set (Str (my_rb_str_downcase (take kn k))) (Imm (if 0 < wn then text_of w wn else Qnil)) [])\<rparr>]"
      using aset get ob(1,2) key
      by (auto simp: param_aset_def rb_new_def set_here rb_hash_aset_def deref_def store_def new_robj_def
          text_of_def nth_append list_update_append split: if_splits)
    moreover have "ivar_of ?ob x = (if x = ''@params'' then Ref (length h0 + 1) else ivar_of ob x)" for x
      by (simp add: ivar_of_def)
    ultimately show ?thesis using ob(3-5) None by (auto simp: made_def new_robj_def)
  next
    case (Some l)
    obtain hb where ob: "h = h0 @ [ob, hb]" "klass hb = ''Hash''" "body hb = HashB l"
        "ivar_of ob ''@params'' = Ref (length h0 + 1)" "klass ob = c" "body ob = Instance"
        "\<forall>x. x \<noteq> ''@params'' \<longrightarrow> ivar_of ob x = Imm (f x)"
      using m Some h by (auto simp: made_def)
    have "h' = h0 @ [ob, hb\<lparr>body := HashB
        (assoc_set (Str (my_rb_str_downcase (take kn k))) (Imm (if 0 < wn then text_of w wn else Qnil)) l)\<rparr>]"
      using aset get ob key
      by (auto simp: param_aset_def rb_hash_aset_def deref_def store_def text_of_def nth_append
          list_update_append split: if_splits)
    then show ?thesis using ob Some by (auto simp: made_def)
  qed
qed

subsection \<open>Every call keeps the object what was said\<close>

lemma uri_values_params: "x \<in> fst ` set (uri_values pton ntop c) \<Longrightarrow> x \<noteq> ''@params''"
proof (cases c)
  case (Uri_known_param own p at n t)
  then show "x \<in> fst ` set (uri_values pton ntop c) \<Longrightarrow> x \<noteq> ''@params''" by (cases p) (auto split: if_splits)
qed (auto split: if_splits)

lemma made_host:
  assumes m: "made h0 c f kvs h" and d: "uri_host pton ntop (Ref (length h0)) None at n t h = Some h'"
  shows "made h0 c (uri_told pton ntop (Uri_host None at n t) f) kvs h'"
proof -
  obtain w where w: "host_chars at n = Some w" using d by (auto simp: uri_host_def bind_eq_Some_conv)
  let ?s = "Sym (case t of host_type_domain \<Rightarrow> ''domain'' | host_type_ipv4 \<Rightarrow> ''ipv4'' | host_type_ipv6 \<Rightarrow> ''ipv6_reference'')"
  obtain h1 where h1: "set_in_uri ''@host'' (Ref (length h0)) None (host_value pton ntop at n t) h = Some h1"
      "set_in_uri ''@host_type'' (Ref (length h0)) None ?s h1 = Some h'"
    using d w
    by (cases t; cases "utils_normalize_ipv6 pton ntop (Str (my_rb_str_downcase w)) False")
      (auto simp: uri_host_def host_value_def name_value_def or_nil_def bind_eq_Some_conv)
  show ?thesis using made_in_uri [OF made_in_uri [OF m h1(1)] h1(2)] by (simp add: uri_told_def)
qed

lemma made_scheme:
  assumes m: "made h0 c f kvs h" and d: "uri_scheme (Ref (length h0)) None at n s h = Some h'"
  shows "made h0 c (uri_told pton ntop (Uri_scheme None at n s) f) kvs h'"
proof -
  have "set_in_uri ''@scheme'' (Ref (length h0)) None (scheme_value (take n at) s) h = Some h'"
    using d by (cases s; cases "the s")
      (auto simp: uri_scheme_def scheme_value_def chars_def bind_eq_Some_conv split: if_splits)
  from made_in_uri [OF m this] show ?thesis by (simp add: uri_told_def)
qed

lemma made_user:
  assumes m: "made h0 c f kvs h" and d: "uri_user (Ref (length h0)) None at n s h = Some h'"
  shows "made h0 c (uri_told pton ntop (Uri_user None at n s) f) kvs h'"
proof -
  have "set_in_uri ''@user'' (Ref (length h0)) None (user_value (take n at) s) h = Some h'"
    using d by (auto simp: uri_user_def user_value_def or_nil_def chars_def bind_eq_Some_conv split: if_splits)
  from made_in_uri [OF m this] show ?thesis by (simp add: uri_told_def)
qed

lemma made_known_param:
  assumes m: "made h0 c f kvs h" and d: "uri_known_param (Ref (length h0)) None p at n t h = Some h'"
  shows "made h0 c (uri_told pton ntop (Uri_known_param None p at n t) f) kvs h'"
proof (cases p)
  case uri_param_transport
  have "set_in_uri ''@transport_param'' (Ref (length h0)) None (or_nil (transport_value t at n)) h = Some h'"
    using d uri_param_transport by (auto simp: uri_known_param_def or_nil_def bind_eq_Some_conv)
  from made_in_uri [OF m this] show ?thesis using uri_param_transport by (simp add: uri_told_def)
next
  case uri_param_ovid
  have "set_in_uri ''@ovid_param'' (Ref (length h0)) None (text_of at n) h = Some h'"
    using d uri_param_ovid by (auto simp: uri_known_param_def text_of_def chars_def bind_eq_Some_conv split: if_splits)
  from made_in_uri [OF m this] show ?thesis using uri_param_ovid by (simp add: uri_told_def)
next
  case uri_tel_phone_context
  show ?thesis
  proof (cases "n = 0")
    case False
    have "set_in_uri ''@phone_context_param'' (Ref (length h0)) None (name_value at n) h = Some h'"
      using d uri_tel_phone_context False
      by (auto simp: uri_known_param_def name_value_def or_nil_def bind_eq_Some_conv)
    from made_in_uri [OF m this] show ?thesis using uri_tel_phone_context False by (simp add: uri_told_def)
  qed (use m d uri_tel_phone_context in \<open>simp add: uri_known_param_def uri_told_def\<close>)
qed (use d in \<open>simp_all add: uri_known_param_def\<close>)

lemma made_has_param:
  assumes m: "made h0 c f kvs h" and d: "uri_has_param (Ref (length h0)) None p h = Some h'"
  shows "made h0 c (uri_told pton ntop (Uri_has_param None p) f) kvs h'"
  using d made_in_uri [OF m] by (cases p) (auto simp: uri_has_param_def uri_told_def)

lemma made_texts:
  assumes m: "made h0 c f kvs h"
  shows "uri_full (Ref (length h0)) None at n h = Some h' \<Longrightarrow>
      made h0 c (uri_told pton ntop (Uri_full None at n) f) kvs h'"
    "uri_port (Ref (length h0)) None at n h = Some h' \<Longrightarrow>
      made h0 c (uri_told pton ntop (Uri_port None at n) f) kvs h'"
    "uri_headers (Ref (length h0)) None at n h = Some h' \<Longrightarrow>
      made h0 c (uri_told pton ntop (Uri_headers None at n) f) kvs h'"
    "uri_display_name (Ref (length h0)) None at n h = Some h' \<Longrightarrow>
      made h0 c (uri_told pton ntop (Uri_display_name None at n) f) kvs h'"
  using made_in_uri [OF m] m
  by (auto simp: uri_full_def uri_port_def uri_headers_def uri_display_name_def uri_told_def text_of_def
      decimal_of_def chars_def bind_eq_Some_conv split: if_splits)

lemma made_call:
  assumes m: "made h0 c f kvs h" and o: "own_call x"
    and d: "sip_dispatch pton ntop nil (Ref (length h0)) x h = Some (h', v)"
  shows "made h0 c (uri_told pton ntop x f) (param_told x kvs) h'"
proof (cases x)
  case (Uri_param own k kn w wn)
  then have u: "own = None" "uri_param (Ref (length h0)) None k kn w wn h = Some h'"
    using o d by (auto simp: own_call_def)
  show ?thesis using made_param [OF m u(2)] Uri_param u(1) by (simp add: uri_told_def)
qed (use o d made_host [OF m] made_scheme [OF m] made_user [OF m] made_known_param [OF m]
       made_has_param [OF m] made_texts [OF m] in \<open>auto simp: own_call_def\<close>)

lemma made_replay:
  assumes "made h0 c f kvs h" "list_all own_call C"
    "replay pton ntop nil C (h, Ref (length h0)) = Some (h', v)"
  shows "made h0 c (fold (uri_told pton ntop) C f) (fold param_told C kvs) h'"
  using assms
proof (induction C arbitrary: f kvs h)
  case (Cons x C)
  obtain h1 v1 where d: "sip_dispatch pton ntop nil (Ref (length h0)) x h = Some (h1, v1)"
      "replay pton ntop nil C (h1, v1) = Some (h', v)"
    using Cons.prems(3) by (auto split: option.splits)
  have o: "own_call x" "list_all own_call C" using Cons.prems(2) by simp_all
  have "v1 = Ref (length h0)" by (rule own_call_parsed [OF o(1) d(1)])
  then show ?case using Cons.IH [OF made_call [OF Cons.prems(1) o(1) d(1)] o(2)] d(2) by simp
qed simp

end
