(* ===== verification/Sip_Uri_States.thy ===== *)
theory Sip_Uri_States
  imports Ragel_Cond
begin

text \<open>
  The arrays of ext/sip_parser/sip_uri_parser.c that have an element per state (3711 states), a row per line
  of the file, and the check that each state stays inside the other arrays.
\<close>

text \<open>What is checked of a state.\<close>

definition sup_state :: "int \<Rightarrow> int \<Rightarrow> int \<Rightarrow> int \<Rightarrow> int \<Rightarrow> int \<Rightarrow> int \<Rightarrow> bool" where
  "sup_state cs co cl ko sl rl io \<longleftrightarrow> state_inside 115139 57570 62768 47474 (co, cl, ko, sl, rl, io)"

lemma sup_state_eq:
  "sup_state cs co cl ko sl rl io \<longleftrightarrow>
     0 \<le> co \<and> 2 * (co + cl) \<le> 115139 \<and> co + cl \<le> 57570 \<and>
     0 \<le> ko \<and> 0 \<le> sl \<and> 0 \<le> rl \<and> 0 \<le> io \<and> ko + sl + 2 * rl \<le> 62768 \<and> io + sl + rl < 47474"
  by (simp add: sup_state_def state_inside_def)

definition sup_cond_offsets_1 :: "int list list" where
  "sup_cond_offsets_1 =
    [[0, 0, 24, 28, 29, 31, 34, 42],
     [49, 78, 103, 127, 140, 153, 172, 185],
     [198, 205, 211, 216, 222, 225, 234, 239],
     [245, 249, 251, 253, 254, 256, 260, 261],
     [263, 267, 268, 270, 273, 289, 290, 292],
     [307, 325, 330, 331, 333, 337, 358, 359],
     [361, 381, 398, 402, 415, 416, 417, 418],
     [419, 420, 421, 423, 427, 430, 444, 458],
     [472, 486, 487, 501, 515, 529, 543, 544],
     [558, 572, 586, 600, 601, 615, 629, 643],
     [657, 658, 672, 686, 700, 714, 715, 729],
     [743, 757, 771, 772, 789, 804, 808, 809],
     [813, 814, 818, 819, 821, 823, 827, 829],
     [831, 833, 837, 839, 841, 843, 847, 849],
     [863, 877, 878, 892, 906, 920, 934, 949],
     [964, 979, 996, 1012, 1027, 1042, 1056, 1070],
     [1087, 1103, 1118, 1133, 1135, 1148, 1164, 1180],
     [1196, 1214, 1231, 1247, 1263, 1278, 1295, 1311],
     [1326, 1341, 1343, 1359, 1375, 1391, 1407, 1425],
     [1442, 1458, 1474, 1489, 1506, 1522, 1537, 1552],
     [1554, 1570, 1586, 1602, 1618, 1636, 1653, 1669],
     [1685, 1700, 1717, 1733, 1748, 1763, 1765, 1781],
     [1797, 1813, 1829, 1847, 1864, 1880, 1896, 1911],
     [1928, 1944, 1959, 1974, 1976, 1992, 2008, 2024],
     [2040, 2058, 2075, 2091, 2107, 2122, 2123, 2140],
     [2156, 2171, 2186, 2188, 2204, 2220, 2236, 2252],
     [2270, 2287, 2303, 2319, 2334, 2358, 2371, 2384],
     [2387, 2390, 2393, 2396, 2401, 2406, 2411, 2414],
     [2420, 2426, 2432, 2438, 2444, 2453, 2462, 2471],
     [2482, 2492, 2498, 2504, 2512, 2519, 2525, 2531],
     [2539, 2546, 2552, 2558, 2566, 2573, 2587, 2601],
     [2615, 2629, 2630, 2644, 2658, 2672, 2686, 2687],
     [2701, 2715, 2729, 2743, 2744, 2758, 2772, 2786],
     [2800, 2801, 2815, 2829, 2843, 2857, 2858, 2872],
     [2886, 2900, 2914, 2915, 2932, 2947, 2951, 2952],
     [2956, 2957, 2961, 2962, 2965, 2967, 2969, 2973],
     [2975, 2977, 2979, 2983, 2985, 2987, 2989, 2993],
     [2995, 3009, 3023, 3024, 3038, 3052, 3066, 3080],
     [3095, 3110, 3125, 3142, 3158, 3173, 3188, 3202],
     [3216, 3233, 3249, 3264, 3279, 3281, 3294, 3310],
     [3326, 3342, 3360, 3377, 3393, 3409, 3424, 3441],
     [3457, 3472, 3487, 3489, 3505, 3521, 3537, 3553],
     [3571, 3588, 3604, 3620, 3635, 3652, 3668, 3683],
     [3698, 3700, 3716, 3732, 3748, 3764, 3782, 3799],
     [3815, 3831, 3846, 3863, 3879, 3894, 3909, 3911],
     [3927, 3943, 3959, 3975, 3993, 4010, 4026, 4042],
     [4057, 4074, 4090, 4105, 4120, 4122, 4138, 4154],
     [4170, 4186, 4204, 4221, 4237, 4253, 4268, 4269],
     [4286, 4302, 4317, 4332, 4334, 4350, 4366, 4382],
     [4398, 4416, 4433, 4449, 4465, 4480, 4493, 4506],
     [4530, 4543, 4556, 4584, 4609, 4638, 4663, 4687],
     [4700, 4713, 4732, 4745, 4758, 4765, 4771, 4776],
     [4782, 4785, 4795, 4800, 4807, 4811, 4813, 4815],
     [4816, 4819, 4823, 4827, 4831, 4835, 4841, 4847],
     [4853, 4857, 4863, 4869, 4875, 4881, 4887, 4897],
     [4907, 4917, 4929, 4940, 4946, 4952, 4960, 4967],
     [4973, 4979, 4987, 4994, 5000, 5006, 5014, 5021],
     [5035, 5049, 5063, 5077, 5078, 5092, 5106, 5120],
     [5134, 5135, 5149, 5163, 5177, 5191, 5192, 5206],
     [5220, 5234, 5248, 5249, 5263, 5277, 5291, 5305],
     [5306, 5320, 5334, 5348, 5362, 5363, 5380, 5395],
     [5399, 5400, 5404, 5405, 5409, 5410, 5414, 5416],
     [5418, 5422, 5424, 5426, 5428, 5432, 5434, 5436],
     [5438, 5442, 5444, 5458, 5472, 5473, 5487, 5501],
     [5515, 5529, 5544, 5559, 5574, 5591, 5607, 5622],
     [5637, 5651, 5665, 5682, 5698, 5713, 5728, 5730],
     [5743, 5759, 5775, 5791, 5809, 5826, 5842, 5858],
     [5873, 5890, 5906, 5921, 5936, 5938, 5954, 5970],
     [5986, 6002, 6020, 6037, 6053, 6069, 6084, 6101],
     [6117, 6132, 6147, 6149, 6165, 6181, 6197, 6213],
     [6231, 6248, 6264, 6280, 6295, 6312, 6328, 6343],
     [6358, 6360, 6376, 6392, 6408, 6424, 6442, 6459],
     [6475, 6491, 6506, 6523, 6539, 6554, 6569, 6571],
     [6587, 6603, 6619, 6635, 6653, 6670, 6686, 6702],
     [6717, 6718, 6735, 6751, 6766, 6781, 6783, 6799],
     [6815, 6831, 6847, 6865, 6882, 6898, 6914, 6929],
     [6942, 6955, 6979, 6992, 7005, 7033, 7044, 7055],
     [7066, 7092, 7116, 7129, 7142, 7161, 7174, 7187],
     [7194, 7200, 7205, 7211, 7214, 7224, 7229, 7236],
     [7240, 7242, 7244, 7245, 7248, 7280, 7304, 7317],
     [7330, 7354, 7377, 7390, 7403, 7423, 7444, 7457],
     [7470, 7492, 7505, 7518, 7538, 7566, 7590, 7615],
     [7639, 7667, 7683, 7711, 7743, 7767, 7795, 7823],
     [7847, 7872, 7896, 7924, 7940, 7968, 7996, 8022],
     [8050, 8078, 8106, 8134, 8162, 8190, 8214, 8251],
     [8275, 8303, 8319, 8347, 8375, 8403, 8431, 8455],
     [8487, 8515, 8539, 8567, 8591, 8619, 8647, 8671],
     [8699, 8727, 8751, 8755, 8759, 8763, 8767, 8773],
     [8779, 8785, 8789, 8795, 8801, 8807, 8813, 8819],
     [8829, 8839, 8849, 8861, 8872, 8878, 8884, 8892],
     [8899, 8905, 8911, 8919, 8926, 8932, 8938, 8946],
     [8953, 8967, 8981, 8995, 9009, 9010, 9024, 9038],
     [9052, 9066, 9067, 9081, 9095, 9109, 9123, 9124],
     [9138, 9152, 9166, 9180, 9181, 9195, 9209, 9223],
     [9237, 9238, 9252, 9266, 9280, 9294, 9295, 9312],
     [9327, 9331, 9332, 9336, 9337, 9341, 9342, 9346],
     [9348, 9350, 9354, 9356, 9358, 9360, 9364, 9366],
     [9368, 9370, 9374, 9376, 9390, 9404, 9405, 9419],
     [9433, 9447, 9461, 9476, 9491, 9506, 9523, 9539],
     [9554, 9569, 9583, 9597, 9614, 9630, 9645, 9660],
     [9662, 9675, 9691, 9707, 9723, 9741, 9758, 9774],
     [9790, 9805, 9822, 9838, 9853, 9868, 9870, 9886],
     [9902, 9918, 9934, 9952, 9969, 9985, 10001, 10016],
     [10033, 10049, 10064, 10079, 10081, 10097, 10113, 10129],
     [10145, 10163, 10180, 10196, 10212, 10227, 10244, 10260],
     [10275, 10290, 10292, 10308, 10324, 10340, 10356, 10374],
     [10391, 10407, 10423, 10438, 10455, 10471, 10486, 10501],
     [10503, 10519, 10535, 10551, 10567, 10585, 10602, 10618],
     [10634, 10649, 10650, 10667, 10683, 10698, 10713, 10715],
     [10731, 10747, 10763, 10779, 10797, 10814, 10830, 10846],
     [10861, 10885, 10909, 10933, 10957, 10982, 11006, 11031],
     [11053, 11073, 11093, 11113, 11135, 11157, 11179, 11201],
     [11223, 11247, 11271, 11295, 11318, 11356, 11383, 11396],
     [11409, 11435, 11448, 11461, 11487, 11513, 11526, 11539],
     [11562, 11589, 11616, 11629, 11642, 11668, 11694, 11707],
     [11720, 11744, 11757, 11770, 11795, 11808, 11821, 11845],
     [11872, 11885, 11898, 11924, 11955, 11982, 12010, 12038],
     [12066, 12094, 12129, 12156, 12187, 12218, 12245, 12273],
     [12301, 12329, 12357, 12388, 12417, 12448, 12479, 12510],
     [12541, 12572, 12603, 12630, 12670, 12698, 12726, 12754],
     [12786, 12818, 12850, 12878, 12914, 12946, 12974, 13006],
     [13034, 13066, 13098, 13126, 13158, 13190, 13218, 13245],
     [13269, 13296, 13320, 13347, 13372, 13397, 13422, 13449],
     [13475, 13499, 13523, 13549, 13574, 13598, 13622, 13648],
     [13673, 13697, 13721, 13747, 13772, 13779, 13790, 13801],
     [13808, 13828, 13849, 13857, 13864, 13884, 13906, 13919],
     [13932, 13943, 13954, 13965, 13976, 13983, 13994, 14005],
     [14016, 14027, 14038, 14049, 14060, 14067, 14087, 14109],
     [14131, 14153, 14175, 14197, 14219, 14241, 14263, 14282],
     [14287, 14294, 14311, 14328, 14329, 14331, 14347, 14360],
     [14361, 14362, 14363, 14364, 14365, 14366, 14368, 14372],
     [14375, 14382, 14410, 14434, 14458, 14471, 14484, 14503],
     [14516, 14529, 14536, 14542, 14547, 14553, 14556, 14564],
     [14569, 14574, 14578, 14580, 14582, 14583, 14584, 14607],
     [14620, 14633, 14635, 14637, 14639, 14641, 14645, 14649],
     [14653, 14655, 14661, 14667, 14673, 14679, 14685, 14693],
     [14701, 14709, 14719, 14728, 14734, 14740, 14748, 14755],
     [14761, 14767, 14775, 14782, 14788, 14794, 14802, 14809],
     [14823, 14837, 14851, 14865, 14866, 14880, 14894, 14908],
     [14922, 14923, 14937, 14951, 14965, 14979, 14980, 14994],
     [15008, 15022, 15036, 15037, 15051, 15065, 15079, 15093],
     [15094, 15108, 15122, 15136, 15150, 15151, 15168, 15183],
     [15187, 15188, 15192, 15193, 15197, 15198, 15200, 15202],
     [15204, 15208, 15210, 15212, 15214, 15218, 15220, 15222],
     [15224, 15228, 15230, 15244, 15258, 15259, 15273, 15287],
     [15301, 15315, 15330, 15345, 15360, 15377, 15393, 15408],
     [15423, 15437, 15451, 15468, 15484, 15499, 15514, 15516],
     [15529, 15545, 15561, 15577, 15595, 15612, 15628, 15644],
     [15659, 15676, 15692, 15707, 15722, 15724, 15740, 15756],
     [15772, 15788, 15806, 15823, 15839, 15855, 15870, 15887]]"

definition sup_cond_offsets_2 :: "int list list" where
  "sup_cond_offsets_2 =
    [[15903, 15918, 15933, 15935, 15951, 15967, 15983, 15999],
     [16017, 16034, 16050, 16066, 16081, 16098, 16114, 16129],
     [16144, 16146, 16162, 16178, 16194, 16210, 16228, 16245],
     [16261, 16277, 16292, 16309, 16325, 16340, 16355, 16357],
     [16373, 16389, 16405, 16421, 16439, 16456, 16472, 16488],
     [16503, 16504, 16521, 16537, 16552, 16567, 16569, 16585],
     [16601, 16617, 16633, 16651, 16668, 16684, 16700, 16715],
     [16728, 16741, 16764, 16777, 16790, 16817, 16841, 16869],
     [16893, 16917, 16930, 16943, 16962, 16975, 16988, 16995],
     [17001, 17006, 17012, 17015, 17024, 17029, 17035, 17039],
     [17041, 17043, 17044, 17046, 17049, 17052, 17055, 17058],
     [17063, 17068, 17073, 17076, 17082, 17088, 17094, 17100],
     [17106, 17115, 17124, 17133, 17144, 17154, 17160, 17166],
     [17174, 17181, 17187, 17193, 17201, 17208, 17214, 17220],
     [17228, 17235, 17249, 17263, 17277, 17291, 17292, 17306],
     [17320, 17334, 17348, 17349, 17363, 17377, 17391, 17405],
     [17406, 17420, 17434, 17448, 17462, 17463, 17477, 17491],
     [17505, 17519, 17520, 17534, 17548, 17562, 17576, 17577],
     [17594, 17609, 17613, 17614, 17618, 17619, 17623, 17624],
     [17627, 17629, 17631, 17635, 17637, 17639, 17641, 17645],
     [17647, 17649, 17651, 17655, 17657, 17671, 17685, 17686],
     [17700, 17714, 17728, 17742, 17757, 17772, 17787, 17804],
     [17820, 17835, 17850, 17864, 17878, 17895, 17911, 17926],
     [17941, 17943, 17956, 17972, 17988, 18004, 18022, 18039],
     [18055, 18071, 18086, 18103, 18119, 18134, 18149, 18151],
     [18167, 18183, 18199, 18215, 18233, 18250, 18266, 18282],
     [18297, 18314, 18330, 18345, 18360, 18362, 18378, 18394],
     [18410, 18426, 18444, 18461, 18477, 18493, 18508, 18525],
     [18541, 18556, 18571, 18573, 18589, 18605, 18621, 18637],
     [18655, 18672, 18688, 18704, 18719, 18736, 18752, 18767],
     [18782, 18784, 18800, 18816, 18832, 18848, 18866, 18883],
     [18899, 18915, 18930, 18931, 18948, 18964, 18979, 18994],
     [18996, 19012, 19028, 19044, 19060, 19078, 19095, 19111],
     [19127, 19142, 19155, 19168, 19191, 19204, 19217, 19244],
     [19255, 19266, 19277, 19303, 19327, 19340, 19353, 19372],
     [19385, 19398, 19405, 19411, 19416, 19422, 19425, 19434],
     [19439, 19445, 19449, 19451, 19453, 19454, 19456, 19488],
     [19511, 19524, 19537, 19560, 19582, 19595, 19608, 19628],
     [19649, 19662, 19675, 19696, 19709, 19722, 19742, 19769],
     [19792, 19816, 19839, 19866, 19881, 19908, 19939, 19962],
     [19989, 20016, 20039, 20063, 20086, 20113, 20128, 20155],
     [20182, 20207, 20234, 20261, 20288, 20315, 20342, 20369],
     [20392, 20428, 20451, 20478, 20493, 20520, 20547, 20574],
     [20601, 20624, 20655, 20682, 20705, 20732, 20755, 20782],
     [20809, 20832, 20859, 20886, 20909, 20912, 20915, 20918],
     [20921, 20926, 20931, 20936, 20939, 20945, 20951, 20957],
     [20963, 20969, 20978, 20987, 20996, 21007, 21017, 21023],
     [21029, 21037, 21044, 21050, 21056, 21064, 21071, 21077],
     [21083, 21091, 21098, 21112, 21126, 21140, 21154, 21155],
     [21169, 21183, 21197, 21211, 21212, 21226, 21240, 21254],
     [21268, 21269, 21283, 21297, 21311, 21325, 21326, 21340],
     [21354, 21368, 21382, 21383, 21397, 21411, 21425, 21439],
     [21440, 21457, 21472, 21476, 21477, 21481, 21482, 21486],
     [21487, 21490, 21492, 21494, 21498, 21500, 21502, 21504],
     [21508, 21510, 21512, 21514, 21518, 21520, 21534, 21548],
     [21549, 21563, 21577, 21591, 21605, 21620, 21635, 21650],
     [21667, 21683, 21698, 21713, 21727, 21741, 21758, 21774],
     [21789, 21804, 21806, 21819, 21835, 21851, 21867, 21885],
     [21902, 21918, 21934, 21949, 21966, 21982, 21997, 22012],
     [22014, 22030, 22046, 22062, 22078, 22096, 22113, 22129],
     [22145, 22160, 22177, 22193, 22208, 22223, 22225, 22241],
     [22257, 22273, 22289, 22307, 22324, 22340, 22356, 22371],
     [22388, 22404, 22419, 22434, 22436, 22452, 22468, 22484],
     [22500, 22518, 22535, 22551, 22567, 22582, 22599, 22615],
     [22630, 22645, 22647, 22663, 22679, 22695, 22711, 22729],
     [22746, 22762, 22778, 22793, 22794, 22811, 22827, 22842],
     [22857, 22859, 22875, 22891, 22907, 22923, 22941, 22958],
     [22974, 22990, 23005, 23029, 23053, 23077, 23101, 23125],
     [23149, 23173, 23195, 23215, 23235, 23255, 23276, 23297],
     [23318, 23339, 23360, 23383, 23406, 23429, 23451, 23489],
     [23515, 23528, 23541, 23566, 23579, 23592, 23617, 23642],
     [23655, 23668, 23691, 23717, 23743, 23756, 23769, 23795],
     [23821, 23834, 23847, 23871, 23884, 23897, 23921, 23934],
     [23947, 23971, 23997, 24010, 24023, 24049, 24079, 24105],
     [24132, 24159, 24186, 24213, 24247, 24273, 24303, 24333],
     [24359, 24386, 24413, 24440, 24467, 24497, 24525, 24555],
     [24585, 24615, 24645, 24675, 24705, 24731, 24770, 24797],
     [24824, 24851, 24882, 24913, 24944, 24971, 25006, 25037],
     [25064, 25095, 25122, 25153, 25184, 25211, 25242, 25273],
     [25300, 25327, 25351, 25378, 25402, 25429, 25453, 25477],
     [25501, 25527, 25552, 25576, 25600, 25626, 25651, 25675],
     [25699, 25725, 25750, 25774, 25798, 25824, 25849, 25856],
     [25867, 25878, 25885, 25905, 25925, 25933, 25939, 25959],
     [25980, 25993, 26006, 26016, 26026, 26036, 26046, 26052],
     [26062, 26072, 26082, 26092, 26102, 26112, 26122, 26128],
     [26148, 26169, 26190, 26211, 26232, 26253, 26274, 26295],
     [26316, 26335, 26340, 26346, 26364, 26393, 26418, 26439],
     [26452, 26465, 26483, 26496, 26509, 26516, 26522, 26527],
     [26533, 26536, 26547, 26552, 26560, 26564, 26566, 26568],
     [26569, 26573, 26578, 26583, 26588, 26593, 26600, 26607],
     [26614, 26619, 26625, 26631, 26637, 26643, 26649, 26660],
     [26671, 26682, 26695, 26707, 26713, 26719, 26727, 26734],
     [26740, 26746, 26754, 26761, 26767, 26773, 26781, 26788],
     [26802, 26816, 26830, 26844, 26845, 26859, 26873, 26887],
     [26901, 26902, 26916, 26930, 26944, 26958, 26959, 26973],
     [26987, 27001, 27015, 27016, 27030, 27044, 27058, 27072],
     [27073, 27087, 27101, 27115, 27129, 27130, 27147, 27162],
     [27166, 27167, 27171, 27172, 27176, 27177, 27182, 27184],
     [27186, 27190, 27192, 27194, 27196, 27200, 27202, 27204],
     [27206, 27210, 27212, 27226, 27240, 27241, 27255, 27269],
     [27283, 27297, 27312, 27327, 27342, 27359, 27375, 27390],
     [27405, 27419, 27433, 27450, 27466, 27481, 27496, 27498],
     [27511, 27527, 27543, 27559, 27577, 27594, 27610, 27626],
     [27641, 27658, 27674, 27689, 27704, 27706, 27722, 27738],
     [27754, 27770, 27788, 27805, 27821, 27837, 27852, 27869],
     [27885, 27900, 27915, 27917, 27933, 27949, 27965, 27981],
     [27999, 28016, 28032, 28048, 28063, 28080, 28096, 28111],
     [28126, 28128, 28144, 28160, 28176, 28192, 28210, 28227],
     [28243, 28259, 28274, 28291, 28307, 28322, 28337, 28339],
     [28355, 28371, 28387, 28403, 28421, 28438, 28454, 28470],
     [28485, 28486, 28503, 28519, 28534, 28549, 28551, 28567],
     [28583, 28599, 28615, 28633, 28650, 28666, 28682, 28697],
     [28710, 28723, 28747, 28760, 28773, 28797, 28810, 28823],
     [28851, 28876, 28905, 28930, 28951, 28964, 28977, 28995],
     [29008, 29021, 29028, 29034, 29039, 29045, 29048, 29060],
     [29065, 29074, 29078, 29080, 29082, 29083, 29088, 29094],
     [29100, 29106, 29112, 29120, 29128, 29136, 29142, 29148],
     [29154, 29160, 29166, 29172, 29184, 29196, 29208, 29222],
     [29235, 29241, 29247, 29255, 29262, 29268, 29274, 29282],
     [29289, 29295, 29301, 29309, 29316, 29330, 29344, 29358],
     [29372, 29373, 29387, 29401, 29415, 29429, 29430, 29444],
     [29458, 29472, 29486, 29487, 29501, 29515, 29529, 29543],
     [29544, 29558, 29572, 29586, 29600, 29601, 29615, 29629],
     [29643, 29657, 29658, 29675, 29690, 29694, 29695, 29699],
     [29700, 29704, 29705, 29711, 29713, 29715, 29719, 29721],
     [29723, 29725, 29729, 29731, 29733, 29735, 29739, 29741],
     [29755, 29769, 29770, 29784, 29798, 29812, 29826, 29841],
     [29856, 29871, 29888, 29904, 29919, 29934, 29948, 29962],
     [29979, 29995, 30010, 30025, 30027, 30040, 30056, 30072],
     [30088, 30106, 30123, 30139, 30155, 30170, 30187, 30203],
     [30218, 30233, 30235, 30251, 30267, 30283, 30299, 30317],
     [30334, 30350, 30366, 30381, 30398, 30414, 30429, 30444],
     [30446, 30462, 30478, 30494, 30510, 30528, 30545, 30561],
     [30577, 30592, 30609, 30625, 30640, 30655, 30657, 30673],
     [30689, 30705, 30721, 30739, 30756, 30772, 30788, 30803],
     [30820, 30836, 30851, 30866, 30868, 30884, 30900, 30916],
     [30932, 30950, 30967, 30983, 30999, 31014, 31015, 31032],
     [31048, 31063, 31078, 31080, 31096, 31112, 31128, 31144],
     [31162, 31179, 31195, 31211, 31226, 31239, 31252, 31276],
     [31289, 31302, 31330, 31352, 31374, 31396, 31419, 31440],
     [31453, 31466, 31484, 31497, 31510, 31517, 31523, 31528],
     [31534, 31537, 31548, 31553, 31561, 31565, 31567, 31569],
     [31570, 31574, 31579, 31584, 31589, 31594, 31601, 31608],
     [31615, 31620, 31626, 31632, 31638, 31644, 31650, 31661],
     [31672, 31683, 31696, 31708, 31714, 31720, 31728, 31735],
     [31741, 31747, 31755, 31762, 31768, 31774, 31782, 31789],
     [31803, 31817, 31831, 31845, 31846, 31860, 31874, 31888],
     [31902, 31903, 31917, 31931, 31945, 31959, 31960, 31974],
     [31988, 32002, 32016, 32017, 32031, 32045, 32059, 32073],
     [32074, 32088, 32102, 32116, 32130, 32131, 32148, 32163]]"

definition sup_cond_offsets_3 :: "int list list" where
  "sup_cond_offsets_3 =
    [[32167, 32168, 32172, 32173, 32177, 32178, 32183, 32185],
     [32187, 32191, 32193, 32195, 32197, 32201, 32203, 32205],
     [32207, 32211, 32213, 32227, 32241, 32242, 32256, 32270],
     [32284, 32298, 32313, 32328, 32343, 32360, 32376, 32391],
     [32406, 32420, 32434, 32451, 32467, 32482, 32497, 32499],
     [32512, 32528, 32544, 32560, 32578, 32595, 32611, 32627],
     [32642, 32659, 32675, 32690, 32705, 32707, 32723, 32739],
     [32755, 32771, 32789, 32806, 32822, 32838, 32853, 32870],
     [32886, 32901, 32916, 32918, 32934, 32950, 32966, 32982],
     [33000, 33017, 33033, 33049, 33064, 33081, 33097, 33112],
     [33127, 33129, 33145, 33161, 33177, 33193, 33211, 33228],
     [33244, 33260, 33275, 33292, 33308, 33323, 33338, 33340],
     [33356, 33372, 33388, 33404, 33422, 33439, 33455, 33471],
     [33486, 33487, 33504, 33520, 33535, 33550, 33552, 33568],
     [33584, 33600, 33616, 33634, 33651, 33667, 33683, 33698],
     [33719, 33740, 33761, 33782, 33807, 33828, 33853, 33874],
     [33893, 33912, 33931, 33953, 33975, 33997, 34019, 34041],
     [34065, 34089, 34113, 34136, 34160, 34181, 34205, 34226],
     [34250, 34275, 34300, 34325, 34352, 34378, 34399, 34420],
     [34443, 34465, 34486, 34507, 34530, 34552, 34573, 34594],
     [34617, 34639, 34657, 34679, 34701, 34719, 34739, 34762],
     [34781, 34786, 34795, 34813, 34844, 34871, 34895, 34908],
     [34921, 34940, 34953, 34966, 34973, 34979, 34984, 34990],
     [34993, 35005, 35010, 35019, 35023, 35025, 35027, 35028],
     [35033, 35039, 35045, 35051, 35057, 35065, 35073, 35081],
     [35087, 35093, 35099, 35105, 35111, 35117, 35129, 35141],
     [35153, 35167, 35180, 35186, 35192, 35200, 35207, 35213],
     [35219, 35227, 35234, 35240, 35246, 35254, 35261, 35275],
     [35289, 35303, 35317, 35318, 35332, 35346, 35360, 35374],
     [35375, 35389, 35403, 35417, 35431, 35432, 35446, 35460],
     [35474, 35488, 35489, 35503, 35517, 35531, 35545, 35546],
     [35560, 35574, 35588, 35602, 35603, 35620, 35635, 35639],
     [35640, 35644, 35645, 35649, 35650, 35656, 35658, 35660],
     [35664, 35666, 35668, 35670, 35674, 35676, 35678, 35680],
     [35684, 35686, 35700, 35714, 35715, 35729, 35743, 35757],
     [35771, 35786, 35801, 35816, 35833, 35849, 35864, 35879],
     [35893, 35907, 35924, 35940, 35955, 35970, 35972, 35985],
     [36001, 36017, 36033, 36051, 36068, 36084, 36100, 36115],
     [36132, 36148, 36163, 36178, 36180, 36196, 36212, 36228],
     [36244, 36262, 36279, 36295, 36311, 36326, 36343, 36359],
     [36374, 36389, 36391, 36407, 36423, 36439, 36455, 36473],
     [36490, 36506, 36522, 36537, 36554, 36570, 36585, 36600],
     [36602, 36618, 36634, 36650, 36666, 36684, 36701, 36717],
     [36733, 36748, 36765, 36781, 36796, 36811, 36813, 36829],
     [36845, 36861, 36877, 36895, 36912, 36928, 36944, 36959],
     [36960, 36977, 36993, 37008, 37023, 37025, 37041, 37057],
     [37073, 37089, 37107, 37124, 37140, 37156, 37171, 37184],
     [37197, 37223, 37236, 37249, 37275, 37288, 37301, 37328],
     [37355, 37385, 37415, 37447, 37474, 37503, 37532, 37562],
     [37590, 37618, 37648, 37678, 37711, 37739, 37768, 37797],
     [37824, 37855, 37882, 37906, 37919, 37932, 37951, 37964],
     [37977, 37984, 37990, 37995, 38001, 38004, 38017, 38022],
     [38032, 38036, 38038, 38040, 38041, 38047, 38054, 38061],
     [38068, 38075, 38084, 38093, 38102, 38109, 38115, 38121],
     [38127, 38133, 38139, 38152, 38165, 38178, 38193, 38207],
     [38213, 38219, 38227, 38234, 38240, 38246, 38254, 38261],
     [38267, 38273, 38281, 38288, 38302, 38316, 38330, 38344],
     [38345, 38359, 38373, 38387, 38401, 38402, 38416, 38430],
     [38444, 38458, 38459, 38473, 38487, 38501, 38515, 38516],
     [38530, 38544, 38558, 38572, 38573, 38587, 38601, 38615],
     [38629, 38630, 38647, 38662, 38666, 38667, 38671, 38672],
     [38676, 38677, 38684, 38686, 38688, 38692, 38694, 38696],
     [38698, 38702, 38704, 38706, 38708, 38712, 38714, 38728],
     [38742, 38743, 38757, 38771, 38785, 38799, 38814, 38829],
     [38844, 38861, 38877, 38892, 38907, 38921, 38935, 38952],
     [38968, 38983, 38998, 39000, 39013, 39029, 39045, 39061],
     [39079, 39096, 39112, 39128, 39143, 39160, 39176, 39191],
     [39206, 39208, 39224, 39240, 39256, 39272, 39290, 39307],
     [39323, 39339, 39354, 39371, 39387, 39402, 39417, 39419],
     [39435, 39451, 39467, 39483, 39501, 39518, 39534, 39550],
     [39565, 39582, 39598, 39613, 39628, 39630, 39646, 39662],
     [39678, 39694, 39712, 39729, 39745, 39761, 39776, 39793],
     [39809, 39824, 39839, 39841, 39857, 39873, 39889, 39905],
     [39923, 39940, 39956, 39972, 39987, 39988, 40005, 40021],
     [40036, 40051, 40053, 40069, 40085, 40101, 40117, 40135],
     [40152, 40168, 40184, 40199, 40212, 40225, 40251, 40264],
     [40277, 40307, 40335, 40363, 40393, 40423, 40456, 40484],
     [40513, 40542, 40564, 40586, 40608, 40634, 40658, 40671],
     [40684, 40703, 40716, 40729, 40736, 40742, 40747, 40753],
     [40756, 40768, 40773, 40782, 40786, 40788, 40790, 40791],
     [40796, 40832, 40859, 40889, 40919, 40950, 40976, 41005],
     [41034, 41068, 41102, 41136, 41170, 41192, 41226, 41260],
     [41294, 41328, 41350, 41384, 41418, 41452, 41486, 41508],
     [41542, 41576, 41610, 41644, 41666, 41700, 41734, 41768],
     [41802, 41824, 41858, 41892, 41926, 41960, 41982, 42019],
     [42053, 42078, 42100, 42125, 42147, 42172, 42194, 42219],
     [42241, 42263, 42287, 42310, 42332, 42354, 42378, 42401],
     [42423, 42445, 42469, 42492, 42526, 42560, 42582, 42616],
     [42650, 42684, 42718, 42752, 42786, 42820, 42856, 42891],
     [42925, 42959, 42993, 43027, 43064, 43098, 43132, 43166],
     [43188, 43222, 43256, 43290, 43324, 43360, 43395, 43429],
     [43463, 43497, 43534, 43568, 43602, 43636, 43658, 43695],
     [43729, 43763, 43797, 43833, 43868, 43902, 43936, 43970],
     [44007, 44041, 44075, 44109, 44131, 44168, 44202, 44236],
     [44270, 44306, 44341, 44375, 44409, 44443, 44480, 44514],
     [44548, 44582, 44604, 44641, 44675, 44709, 44743, 44779],
     [44814, 44848, 44882, 44916, 44953, 44987, 45021, 45055],
     [45077, 45114, 45148, 45182, 45216, 45252, 45287, 45321],
     [45355, 45389, 45411, 45448, 45482, 45516, 45550, 45572],
     [45609, 45643, 45677, 45711, 45747, 45782, 45816, 45850],
     [45884, 45915, 45942, 45973, 45999, 46029, 46047, 46077],
     [46112, 46139, 46170, 46201, 46228, 46259, 46285, 46315],
     [46333, 46363, 46394, 46423, 46454, 46485, 46516, 46547],
     [46578, 46609, 46636, 46679, 46705, 46735, 46753, 46783],
     [46813, 46843, 46873, 46899, 46933, 46963, 46989, 47019],
     [47045, 47075, 47105, 47131, 47161, 47191, 47217, 47223],
     [47229, 47235, 47241, 47249, 47257, 47265, 47271, 47277],
     [47283, 47289, 47295, 47301, 47313, 47325, 47337, 47351],
     [47364, 47370, 47376, 47384, 47391, 47397, 47403, 47411],
     [47418, 47424, 47430, 47438, 47445, 47459, 47473, 47487],
     [47501, 47502, 47516, 47530, 47544, 47558, 47559, 47573],
     [47587, 47601, 47615, 47616, 47630, 47644, 47658, 47672],
     [47673, 47687, 47701, 47715, 47729, 47730, 47744, 47758],
     [47772, 47786, 47787, 47804, 47819, 47823, 47824, 47828],
     [47829, 47833, 47834, 47840, 47842, 47844, 47848, 47850],
     [47852, 47854, 47858, 47860, 47862, 47864, 47868, 47870],
     [47884, 47898, 47899, 47913, 47927, 47941, 47955, 47970],
     [47985, 48000, 48017, 48033, 48048, 48063, 48077, 48091],
     [48108, 48124, 48139, 48154, 48156, 48169, 48185, 48201],
     [48217, 48235, 48252, 48268, 48284, 48299, 48316, 48332],
     [48347, 48362, 48364, 48380, 48396, 48412, 48428, 48446],
     [48463, 48479, 48495, 48510, 48527, 48543, 48558, 48573],
     [48575, 48591, 48607, 48623, 48639, 48657, 48674, 48690],
     [48706, 48721, 48738, 48754, 48769, 48784, 48786, 48802],
     [48818, 48834, 48850, 48868, 48885, 48901, 48917, 48932],
     [48949, 48965, 48980, 48995, 48997, 49013, 49029, 49045],
     [49061, 49079, 49096, 49112, 49128, 49143, 49144, 49161],
     [49177, 49192, 49207, 49209, 49225, 49241, 49257, 49273],
     [49291, 49308, 49324, 49340, 49355, 49379, 49403, 49427],
     [49451, 49478, 49502, 49529, 49551, 49571, 49591, 49611],
     [49635, 49659, 49683, 49707, 49731, 49757, 49783, 49809],
     [49834, 49876, 49906, 49936, 49966, 50000, 50030, 50059],
     [50088, 50122, 50152, 50186, 50216, 50246, 50276, 50314],
     [50344, 50378, 50412, 50442, 50476, 50506, 50536, 50566],
     [50600, 50632, 50666, 50700, 50734, 50768, 50802, 50836],
     [50866, 50912, 50942, 50972, 51002, 51036, 51070, 51104],
     [51134, 51172, 51206, 51236, 51270, 51300, 51334, 51368],
     [51398, 51432, 51466, 51496, 51523, 51547, 51574, 51598],
     [51625, 51652, 51679, 51706, 51735, 51763, 51787, 51811],
     [51837, 51862, 51886, 51910, 51936, 51961, 51985, 52009],
     [52035, 52060, 52078, 52100, 52122, 52140, 52160, 52183],
     [52203, 52221, 52249, 52274, 52303, 52332, 52365, 52398],
     [52431, 52464, 52485, 52518, 52551, 52584, 52617, 52638],
     [52671, 52704, 52737, 52770, 52791, 52824, 52857, 52890],
     [52923, 52944, 52977, 53010, 53043, 53076, 53097, 53130],
     [53163, 53196, 53229, 53250, 53286, 53319, 53343, 53364],
     [53388, 53409, 53433, 53454, 53478, 53499, 53520, 53543],
     [53565, 53586, 53607, 53630, 53652, 53673, 53694, 53717],
     [53739, 53772, 53805, 53826, 53859, 53892, 53925, 53958],
     [53991, 54024, 54057, 54092, 54126, 54159, 54192, 54225]]"

definition sup_cond_offsets_4 :: "int list list" where
  "sup_cond_offsets_4 =
    [[54258, 54294, 54327, 54360, 54393, 54414, 54447, 54480],
     [54513, 54546, 54581, 54615, 54648, 54681, 54714, 54750],
     [54783, 54816, 54849, 54870, 54906, 54939, 54972, 55005],
     [55040, 55074, 55107, 55140, 55173, 55209, 55242, 55275],
     [55308, 55329, 55365, 55398, 55431, 55464, 55499, 55533],
     [55566, 55599, 55632, 55668, 55701, 55734, 55767, 55788],
     [55824, 55857, 55890, 55923, 55958, 55992, 56025, 56058],
     [56091, 56127, 56160, 56193, 56226, 56247, 56283, 56316],
     [56349, 56382, 56417, 56451, 56484, 56517, 56550, 56571],
     [56607, 56640, 56673, 56706, 56727, 56763, 56796, 56829],
     [56862, 56897, 56931, 56964, 56997, 57030, 57052, 57074],
     [57096, 57118, 57136, 57158, 57180, 57202, 57224, 57246],
     [57268, 57290, 57308, 57336, 57361, 57386, 57411, 57436],
     [57461, 57486, 57511, 57536, 57555, 57560, 57569]]"

definition sup_cond_lengths_1 :: "int list list" where
  "sup_cond_lengths_1 =
    [[0, 24, 4, 1, 2, 3, 8, 7],
     [29, 25, 24, 13, 13, 19, 13, 13],
     [7, 6, 5, 6, 3, 9, 5, 6],
     [4, 2, 2, 1, 2, 4, 1, 2],
     [4, 1, 2, 3, 16, 1, 2, 15],
     [18, 5, 1, 2, 4, 21, 1, 2],
     [20, 17, 4, 13, 1, 1, 1, 1],
     [1, 1, 2, 4, 3, 14, 14, 14],
     [14, 1, 14, 14, 14, 14, 1, 14],
     [14, 14, 14, 1, 14, 14, 14, 14],
     [1, 14, 14, 14, 14, 1, 14, 14],
     [14, 14, 1, 17, 15, 4, 1, 4],
     [1, 4, 1, 2, 2, 4, 2, 2],
     [2, 4, 2, 2, 2, 4, 2, 14],
     [14, 1, 14, 14, 14, 14, 15, 15],
     [15, 17, 16, 15, 15, 14, 14, 17],
     [16, 15, 15, 2, 13, 16, 16, 16],
     [18, 17, 16, 16, 15, 17, 16, 15],
     [15, 2, 16, 16, 16, 16, 18, 17],
     [16, 16, 15, 17, 16, 15, 15, 2],
     [16, 16, 16, 16, 18, 17, 16, 16],
     [15, 17, 16, 15, 15, 2, 16, 16],
     [16, 16, 18, 17, 16, 16, 15, 17],
     [16, 15, 15, 2, 16, 16, 16, 16],
     [18, 17, 16, 16, 15, 1, 17, 16],
     [15, 15, 2, 16, 16, 16, 16, 18],
     [17, 16, 16, 15, 24, 13, 13, 3],
     [3, 3, 3, 5, 5, 5, 3, 6],
     [6, 6, 6, 6, 9, 9, 9, 11],
     [10, 6, 6, 8, 7, 6, 6, 8],
     [7, 6, 6, 8, 7, 14, 14, 14],
     [14, 1, 14, 14, 14, 14, 1, 14],
     [14, 14, 14, 1, 14, 14, 14, 14],
     [1, 14, 14, 14, 14, 1, 14, 14],
     [14, 14, 1, 17, 15, 4, 1, 4],
     [1, 4, 1, 3, 2, 2, 4, 2],
     [2, 2, 4, 2, 2, 2, 4, 2],
     [14, 14, 1, 14, 14, 14, 14, 15],
     [15, 15, 17, 16, 15, 15, 14, 14],
     [17, 16, 15, 15, 2, 13, 16, 16],
     [16, 18, 17, 16, 16, 15, 17, 16],
     [15, 15, 2, 16, 16, 16, 16, 18],
     [17, 16, 16, 15, 17, 16, 15, 15],
     [2, 16, 16, 16, 16, 18, 17, 16],
     [16, 15, 17, 16, 15, 15, 2, 16],
     [16, 16, 16, 18, 17, 16, 16, 15],
     [17, 16, 15, 15, 2, 16, 16, 16],
     [16, 18, 17, 16, 16, 15, 1, 17],
     [16, 15, 15, 2, 16, 16, 16, 16],
     [18, 17, 16, 16, 15, 13, 13, 24],
     [13, 13, 28, 25, 29, 25, 24, 13],
     [13, 19, 13, 13, 7, 6, 5, 6],
     [3, 10, 5, 7, 4, 2, 2, 1],
     [3, 4, 4, 4, 4, 6, 6, 6],
     [4, 6, 6, 6, 6, 6, 10, 10],
     [10, 12, 11, 6, 6, 8, 7, 6],
     [6, 8, 7, 6, 6, 8, 7, 14],
     [14, 14, 14, 1, 14, 14, 14, 14],
     [1, 14, 14, 14, 14, 1, 14, 14],
     [14, 14, 1, 14, 14, 14, 14, 1],
     [14, 14, 14, 14, 1, 17, 15, 4],
     [1, 4, 1, 4, 1, 4, 2, 2],
     [4, 2, 2, 2, 4, 2, 2, 2],
     [4, 2, 14, 14, 1, 14, 14, 14],
     [14, 15, 15, 15, 17, 16, 15, 15],
     [14, 14, 17, 16, 15, 15, 2, 13],
     [16, 16, 16, 18, 17, 16, 16, 15],
     [17, 16, 15, 15, 2, 16, 16, 16],
     [16, 18, 17, 16, 16, 15, 17, 16],
     [15, 15, 2, 16, 16, 16, 16, 18],
     [17, 16, 16, 15, 17, 16, 15, 15],
     [2, 16, 16, 16, 16, 18, 17, 16],
     [16, 15, 17, 16, 15, 15, 2, 16],
     [16, 16, 16, 18, 17, 16, 16, 15],
     [1, 17, 16, 15, 15, 2, 16, 16],
     [16, 16, 18, 17, 16, 16, 15, 13],
     [13, 24, 13, 13, 28, 11, 11, 11],
     [26, 24, 13, 13, 19, 13, 13, 7],
     [6, 5, 6, 3, 10, 5, 7, 4],
     [2, 2, 1, 3, 32, 24, 13, 13],
     [24, 23, 13, 13, 20, 21, 13, 13],
     [22, 13, 13, 20, 28, 24, 25, 24],
     [28, 16, 28, 32, 24, 28, 28, 24],
     [25, 24, 28, 16, 28, 28, 26, 28],
     [28, 28, 28, 28, 28, 24, 37, 24],
     [28, 16, 28, 28, 28, 28, 24, 32],
     [28, 24, 28, 24, 28, 28, 24, 28],
     [28, 24, 4, 4, 4, 4, 6, 6],
     [6, 4, 6, 6, 6, 6, 6, 10],
     [10, 10, 12, 11, 6, 6, 8, 7],
     [6, 6, 8, 7, 6, 6, 8, 7],
     [14, 14, 14, 14, 1, 14, 14, 14],
     [14, 1, 14, 14, 14, 14, 1, 14],
     [14, 14, 14, 1, 14, 14, 14, 14],
     [1, 14, 14, 14, 14, 1, 17, 15],
     [4, 1, 4, 1, 4, 1, 4, 2],
     [2, 4, 2, 2, 2, 4, 2, 2],
     [2, 4, 2, 14, 14, 1, 14, 14],
     [14, 14, 15, 15, 15, 17, 16, 15],
     [15, 14, 14, 17, 16, 15, 15, 2],
     [13, 16, 16, 16, 18, 17, 16, 16],
     [15, 17, 16, 15, 15, 2, 16, 16],
     [16, 16, 18, 17, 16, 16, 15, 17],
     [16, 15, 15, 2, 16, 16, 16, 16],
     [18, 17, 16, 16, 15, 17, 16, 15],
     [15, 2, 16, 16, 16, 16, 18, 17],
     [16, 16, 15, 17, 16, 15, 15, 2],
     [16, 16, 16, 16, 18, 17, 16, 16],
     [15, 1, 17, 16, 15, 15, 2, 16],
     [16, 16, 16, 18, 17, 16, 16, 15],
     [24, 24, 24, 24, 25, 24, 25, 22],
     [20, 20, 20, 22, 22, 22, 22, 22],
     [24, 24, 24, 23, 38, 27, 13, 13],
     [26, 13, 13, 26, 26, 13, 13, 23],
     [27, 27, 13, 13, 26, 26, 13, 13],
     [24, 13, 13, 25, 13, 13, 24, 27],
     [13, 13, 26, 31, 27, 28, 28, 28],
     [28, 35, 27, 31, 31, 27, 28, 28],
     [28, 28, 31, 29, 31, 31, 31, 31],
     [31, 31, 27, 40, 28, 28, 28, 32],
     [32, 32, 28, 36, 32, 28, 32, 28],
     [32, 32, 28, 32, 32, 28, 27, 24],
     [27, 24, 27, 25, 25, 25, 27, 26],
     [24, 24, 26, 25, 24, 24, 26, 25],
     [24, 24, 26, 25, 7, 11, 11, 7],
     [20, 21, 8, 7, 20, 22, 13, 13],
     [11, 11, 11, 11, 7, 11, 11, 11],
     [11, 11, 11, 11, 7, 20, 22, 22],
     [22, 22, 22, 22, 22, 22, 19, 5],
     [7, 17, 17, 1, 2, 16, 13, 1],
     [1, 1, 1, 1, 1, 2, 4, 3],
     [7, 28, 24, 24, 13, 13, 19, 13],
     [13, 7, 6, 5, 6, 3, 8, 5],
     [5, 4, 2, 2, 1, 1, 23, 13],
     [13, 2, 2, 2, 2, 4, 4, 4],
     [2, 6, 6, 6, 6, 6, 8, 8],
     [8, 10, 9, 6, 6, 8, 7, 6],
     [6, 8, 7, 6, 6, 8, 7, 14],
     [14, 14, 14, 1, 14, 14, 14, 14],
     [1, 14, 14, 14, 14, 1, 14, 14],
     [14, 14, 1, 14, 14, 14, 14, 1],
     [14, 14, 14, 14, 1, 17, 15, 4],
     [1, 4, 1, 4, 1, 2, 2, 2],
     [4, 2, 2, 2, 4, 2, 2, 2],
     [4, 2, 14, 14, 1, 14, 14, 14],
     [14, 15, 15, 15, 17, 16, 15, 15],
     [14, 14, 17, 16, 15, 15, 2, 13],
     [16, 16, 16, 18, 17, 16, 16, 15],
     [17, 16, 15, 15, 2, 16, 16, 16],
     [16, 18, 17, 16, 16, 15, 17, 16]]"

definition sup_cond_lengths_2 :: "int list list" where
  "sup_cond_lengths_2 =
    [[15, 15, 2, 16, 16, 16, 16, 18],
     [17, 16, 16, 15, 17, 16, 15, 15],
     [2, 16, 16, 16, 16, 18, 17, 16],
     [16, 15, 17, 16, 15, 15, 2, 16],
     [16, 16, 16, 18, 17, 16, 16, 15],
     [1, 17, 16, 15, 15, 2, 16, 16],
     [16, 16, 18, 17, 16, 16, 15, 13],
     [13, 23, 13, 13, 27, 24, 28, 24],
     [24, 13, 13, 19, 13, 13, 7, 6],
     [5, 6, 3, 9, 5, 6, 4, 2],
     [2, 1, 2, 3, 3, 3, 3, 5],
     [5, 5, 3, 6, 6, 6, 6, 6],
     [9, 9, 9, 11, 10, 6, 6, 8],
     [7, 6, 6, 8, 7, 6, 6, 8],
     [7, 14, 14, 14, 14, 1, 14, 14],
     [14, 14, 1, 14, 14, 14, 14, 1],
     [14, 14, 14, 14, 1, 14, 14, 14],
     [14, 1, 14, 14, 14, 14, 1, 17],
     [15, 4, 1, 4, 1, 4, 1, 3],
     [2, 2, 4, 2, 2, 2, 4, 2],
     [2, 2, 4, 2, 14, 14, 1, 14],
     [14, 14, 14, 15, 15, 15, 17, 16],
     [15, 15, 14, 14, 17, 16, 15, 15],
     [2, 13, 16, 16, 16, 18, 17, 16],
     [16, 15, 17, 16, 15, 15, 2, 16],
     [16, 16, 16, 18, 17, 16, 16, 15],
     [17, 16, 15, 15, 2, 16, 16, 16],
     [16, 18, 17, 16, 16, 15, 17, 16],
     [15, 15, 2, 16, 16, 16, 16, 18],
     [17, 16, 16, 15, 17, 16, 15, 15],
     [2, 16, 16, 16, 16, 18, 17, 16],
     [16, 15, 1, 17, 16, 15, 15, 2],
     [16, 16, 16, 16, 18, 17, 16, 16],
     [15, 13, 13, 23, 13, 13, 27, 11],
     [11, 11, 26, 24, 13, 13, 19, 13],
     [13, 7, 6, 5, 6, 3, 9, 5],
     [6, 4, 2, 2, 1, 2, 32, 23],
     [13, 13, 23, 22, 13, 13, 20, 21],
     [13, 13, 21, 13, 13, 20, 27, 23],
     [24, 23, 27, 15, 27, 31, 23, 27],
     [27, 23, 24, 23, 27, 15, 27, 27],
     [25, 27, 27, 27, 27, 27, 27, 23],
     [36, 23, 27, 15, 27, 27, 27, 27],
     [23, 31, 27, 23, 27, 23, 27, 27],
     [23, 27, 27, 23, 3, 3, 3, 3],
     [5, 5, 5, 3, 6, 6, 6, 6],
     [6, 9, 9, 9, 11, 10, 6, 6],
     [8, 7, 6, 6, 8, 7, 6, 6],
     [8, 7, 14, 14, 14, 14, 1, 14],
     [14, 14, 14, 1, 14, 14, 14, 14],
     [1, 14, 14, 14, 14, 1, 14, 14],
     [14, 14, 1, 14, 14, 14, 14, 1],
     [17, 15, 4, 1, 4, 1, 4, 1],
     [3, 2, 2, 4, 2, 2, 2, 4],
     [2, 2, 2, 4, 2, 14, 14, 1],
     [14, 14, 14, 14, 15, 15, 15, 17],
     [16, 15, 15, 14, 14, 17, 16, 15],
     [15, 2, 13, 16, 16, 16, 18, 17],
     [16, 16, 15, 17, 16, 15, 15, 2],
     [16, 16, 16, 16, 18, 17, 16, 16],
     [15, 17, 16, 15, 15, 2, 16, 16],
     [16, 16, 18, 17, 16, 16, 15, 17],
     [16, 15, 15, 2, 16, 16, 16, 16],
     [18, 17, 16, 16, 15, 17, 16, 15],
     [15, 2, 16, 16, 16, 16, 18, 17],
     [16, 16, 15, 1, 17, 16, 15, 15],
     [2, 16, 16, 16, 16, 18, 17, 16],
     [16, 15, 24, 24, 24, 24, 24, 24],
     [24, 22, 20, 20, 20, 21, 21, 21],
     [21, 21, 23, 23, 23, 22, 38, 26],
     [13, 13, 25, 13, 13, 25, 25, 13],
     [13, 23, 26, 26, 13, 13, 26, 26],
     [13, 13, 24, 13, 13, 24, 13, 13],
     [24, 26, 13, 13, 26, 30, 26, 27],
     [27, 27, 27, 34, 26, 30, 30, 26],
     [27, 27, 27, 27, 30, 28, 30, 30],
     [30, 30, 30, 30, 26, 39, 27, 27],
     [27, 31, 31, 31, 27, 35, 31, 27],
     [31, 27, 31, 31, 27, 31, 31, 27],
     [27, 24, 27, 24, 27, 24, 24, 24],
     [26, 25, 24, 24, 26, 25, 24, 24],
     [26, 25, 24, 24, 26, 25, 7, 11],
     [11, 7, 20, 20, 8, 6, 20, 21],
     [13, 13, 10, 10, 10, 10, 6, 10],
     [10, 10, 10, 10, 10, 10, 6, 20],
     [21, 21, 21, 21, 21, 21, 21, 21],
     [19, 5, 6, 18, 29, 25, 21, 13],
     [13, 18, 13, 13, 7, 6, 5, 6],
     [3, 11, 5, 8, 4, 2, 2, 1],
     [4, 5, 5, 5, 5, 7, 7, 7],
     [5, 6, 6, 6, 6, 6, 11, 11],
     [11, 13, 12, 6, 6, 8, 7, 6],
     [6, 8, 7, 6, 6, 8, 7, 14],
     [14, 14, 14, 1, 14, 14, 14, 14],
     [1, 14, 14, 14, 14, 1, 14, 14],
     [14, 14, 1, 14, 14, 14, 14, 1],
     [14, 14, 14, 14, 1, 17, 15, 4],
     [1, 4, 1, 4, 1, 5, 2, 2],
     [4, 2, 2, 2, 4, 2, 2, 2],
     [4, 2, 14, 14, 1, 14, 14, 14],
     [14, 15, 15, 15, 17, 16, 15, 15],
     [14, 14, 17, 16, 15, 15, 2, 13],
     [16, 16, 16, 18, 17, 16, 16, 15],
     [17, 16, 15, 15, 2, 16, 16, 16],
     [16, 18, 17, 16, 16, 15, 17, 16],
     [15, 15, 2, 16, 16, 16, 16, 18],
     [17, 16, 16, 15, 17, 16, 15, 15],
     [2, 16, 16, 16, 16, 18, 17, 16],
     [16, 15, 17, 16, 15, 15, 2, 16],
     [16, 16, 16, 18, 17, 16, 16, 15],
     [1, 17, 16, 15, 15, 2, 16, 16],
     [16, 16, 18, 17, 16, 16, 15, 13],
     [13, 24, 13, 13, 24, 13, 13, 28],
     [25, 29, 25, 21, 13, 13, 18, 13],
     [13, 7, 6, 5, 6, 3, 12, 5],
     [9, 4, 2, 2, 1, 5, 6, 6],
     [6, 6, 8, 8, 8, 6, 6, 6],
     [6, 6, 6, 12, 12, 12, 14, 13],
     [6, 6, 8, 7, 6, 6, 8, 7],
     [6, 6, 8, 7, 14, 14, 14, 14],
     [1, 14, 14, 14, 14, 1, 14, 14],
     [14, 14, 1, 14, 14, 14, 14, 1],
     [14, 14, 14, 14, 1, 14, 14, 14],
     [14, 1, 17, 15, 4, 1, 4, 1],
     [4, 1, 6, 2, 2, 4, 2, 2],
     [2, 4, 2, 2, 2, 4, 2, 14],
     [14, 1, 14, 14, 14, 14, 15, 15],
     [15, 17, 16, 15, 15, 14, 14, 17],
     [16, 15, 15, 2, 13, 16, 16, 16],
     [18, 17, 16, 16, 15, 17, 16, 15],
     [15, 2, 16, 16, 16, 16, 18, 17],
     [16, 16, 15, 17, 16, 15, 15, 2],
     [16, 16, 16, 16, 18, 17, 16, 16],
     [15, 17, 16, 15, 15, 2, 16, 16],
     [16, 16, 18, 17, 16, 16, 15, 17],
     [16, 15, 15, 2, 16, 16, 16, 16],
     [18, 17, 16, 16, 15, 1, 17, 16],
     [15, 15, 2, 16, 16, 16, 16, 18],
     [17, 16, 16, 15, 13, 13, 24, 13],
     [13, 28, 22, 22, 22, 23, 21, 13],
     [13, 18, 13, 13, 7, 6, 5, 6],
     [3, 11, 5, 8, 4, 2, 2, 1],
     [4, 5, 5, 5, 5, 7, 7, 7],
     [5, 6, 6, 6, 6, 6, 11, 11],
     [11, 13, 12, 6, 6, 8, 7, 6],
     [6, 8, 7, 6, 6, 8, 7, 14],
     [14, 14, 14, 1, 14, 14, 14, 14],
     [1, 14, 14, 14, 14, 1, 14, 14],
     [14, 14, 1, 14, 14, 14, 14, 1],
     [14, 14, 14, 14, 1, 17, 15, 4]]"

definition sup_cond_lengths_3 :: "int list list" where
  "sup_cond_lengths_3 =
    [[1, 4, 1, 4, 1, 5, 2, 2],
     [4, 2, 2, 2, 4, 2, 2, 2],
     [4, 2, 14, 14, 1, 14, 14, 14],
     [14, 15, 15, 15, 17, 16, 15, 15],
     [14, 14, 17, 16, 15, 15, 2, 13],
     [16, 16, 16, 18, 17, 16, 16, 15],
     [17, 16, 15, 15, 2, 16, 16, 16],
     [16, 18, 17, 16, 16, 15, 17, 16],
     [15, 15, 2, 16, 16, 16, 16, 18],
     [17, 16, 16, 15, 17, 16, 15, 15],
     [2, 16, 16, 16, 16, 18, 17, 16],
     [16, 15, 17, 16, 15, 15, 2, 16],
     [16, 16, 16, 18, 17, 16, 16, 15],
     [1, 17, 16, 15, 15, 2, 16, 16],
     [16, 16, 18, 17, 16, 16, 15, 21],
     [21, 21, 21, 25, 21, 25, 21, 19],
     [19, 19, 22, 22, 22, 22, 22, 24],
     [24, 24, 23, 24, 21, 24, 21, 24],
     [25, 25, 25, 27, 26, 21, 21, 23],
     [22, 21, 21, 23, 22, 21, 21, 23],
     [22, 18, 22, 22, 18, 20, 23, 19],
     [5, 9, 18, 31, 27, 24, 13, 13],
     [19, 13, 13, 7, 6, 5, 6, 3],
     [12, 5, 9, 4, 2, 2, 1, 5],
     [6, 6, 6, 6, 8, 8, 8, 6],
     [6, 6, 6, 6, 6, 12, 12, 12],
     [14, 13, 6, 6, 8, 7, 6, 6],
     [8, 7, 6, 6, 8, 7, 14, 14],
     [14, 14, 1, 14, 14, 14, 14, 1],
     [14, 14, 14, 14, 1, 14, 14, 14],
     [14, 1, 14, 14, 14, 14, 1, 14],
     [14, 14, 14, 1, 17, 15, 4, 1],
     [4, 1, 4, 1, 6, 2, 2, 4],
     [2, 2, 2, 4, 2, 2, 2, 4],
     [2, 14, 14, 1, 14, 14, 14, 14],
     [15, 15, 15, 17, 16, 15, 15, 14],
     [14, 17, 16, 15, 15, 2, 13, 16],
     [16, 16, 18, 17, 16, 16, 15, 17],
     [16, 15, 15, 2, 16, 16, 16, 16],
     [18, 17, 16, 16, 15, 17, 16, 15],
     [15, 2, 16, 16, 16, 16, 18, 17],
     [16, 16, 15, 17, 16, 15, 15, 2],
     [16, 16, 16, 16, 18, 17, 16, 16],
     [15, 17, 16, 15, 15, 2, 16, 16],
     [16, 16, 18, 17, 16, 16, 15, 1],
     [17, 16, 15, 15, 2, 16, 16, 16],
     [16, 18, 17, 16, 16, 15, 13, 13],
     [26, 13, 13, 26, 13, 13, 27, 27],
     [30, 30, 32, 27, 29, 29, 30, 28],
     [28, 30, 30, 33, 28, 29, 29, 27],
     [31, 27, 24, 13, 13, 19, 13, 13],
     [7, 6, 5, 6, 3, 13, 5, 10],
     [4, 2, 2, 1, 6, 7, 7, 7],
     [7, 9, 9, 9, 7, 6, 6, 6],
     [6, 6, 13, 13, 13, 15, 14, 6],
     [6, 8, 7, 6, 6, 8, 7, 6],
     [6, 8, 7, 14, 14, 14, 14, 1],
     [14, 14, 14, 14, 1, 14, 14, 14],
     [14, 1, 14, 14, 14, 14, 1, 14],
     [14, 14, 14, 1, 14, 14, 14, 14],
     [1, 17, 15, 4, 1, 4, 1, 4],
     [1, 7, 2, 2, 4, 2, 2, 2],
     [4, 2, 2, 2, 4, 2, 14, 14],
     [1, 14, 14, 14, 14, 15, 15, 15],
     [17, 16, 15, 15, 14, 14, 17, 16],
     [15, 15, 2, 13, 16, 16, 16, 18],
     [17, 16, 16, 15, 17, 16, 15, 15],
     [2, 16, 16, 16, 16, 18, 17, 16],
     [16, 15, 17, 16, 15, 15, 2, 16],
     [16, 16, 16, 18, 17, 16, 16, 15],
     [17, 16, 15, 15, 2, 16, 16, 16],
     [16, 18, 17, 16, 16, 15, 17, 16],
     [15, 15, 2, 16, 16, 16, 16, 18],
     [17, 16, 16, 15, 1, 17, 16, 15],
     [15, 2, 16, 16, 16, 16, 18, 17],
     [16, 16, 15, 13, 13, 26, 13, 13],
     [30, 28, 28, 30, 30, 33, 28, 29],
     [29, 22, 22, 22, 26, 24, 13, 13],
     [19, 13, 13, 7, 6, 5, 6, 3],
     [12, 5, 9, 4, 2, 2, 1, 5],
     [36, 27, 30, 30, 31, 26, 29, 29],
     [34, 34, 34, 34, 22, 34, 34, 34],
     [34, 22, 34, 34, 34, 34, 22, 34],
     [34, 34, 34, 22, 34, 34, 34, 34],
     [22, 34, 34, 34, 34, 22, 37, 34],
     [25, 22, 25, 22, 25, 22, 25, 22],
     [22, 24, 23, 22, 22, 24, 23, 22],
     [22, 24, 23, 34, 34, 22, 34, 34],
     [34, 34, 34, 34, 34, 36, 35, 34],
     [34, 34, 34, 37, 34, 34, 34, 22],
     [34, 34, 34, 34, 36, 35, 34, 34],
     [34, 37, 34, 34, 34, 22, 37, 34],
     [34, 34, 36, 35, 34, 34, 34, 37],
     [34, 34, 34, 22, 37, 34, 34, 34],
     [36, 35, 34, 34, 34, 37, 34, 34],
     [34, 22, 37, 34, 34, 34, 36, 35],
     [34, 34, 34, 37, 34, 34, 34, 22],
     [37, 34, 34, 34, 36, 35, 34, 34],
     [34, 22, 37, 34, 34, 34, 22, 37],
     [34, 34, 34, 36, 35, 34, 34, 34],
     [31, 27, 31, 26, 30, 18, 30, 35],
     [27, 31, 31, 27, 31, 26, 30, 18],
     [30, 31, 29, 31, 31, 31, 31, 31],
     [31, 27, 43, 26, 30, 18, 30, 30],
     [30, 30, 26, 34, 30, 26, 30, 26],
     [30, 30, 26, 30, 30, 26, 6, 6],
     [6, 6, 8, 8, 8, 6, 6, 6],
     [6, 6, 6, 12, 12, 12, 14, 13],
     [6, 6, 8, 7, 6, 6, 8, 7],
     [6, 6, 8, 7, 14, 14, 14, 14],
     [1, 14, 14, 14, 14, 1, 14, 14],
     [14, 14, 1, 14, 14, 14, 14, 1],
     [14, 14, 14, 14, 1, 14, 14, 14],
     [14, 1, 17, 15, 4, 1, 4, 1],
     [4, 1, 6, 2, 2, 4, 2, 2],
     [2, 4, 2, 2, 2, 4, 2, 14],
     [14, 1, 14, 14, 14, 14, 15, 15],
     [15, 17, 16, 15, 15, 14, 14, 17],
     [16, 15, 15, 2, 13, 16, 16, 16],
     [18, 17, 16, 16, 15, 17, 16, 15],
     [15, 2, 16, 16, 16, 16, 18, 17],
     [16, 16, 15, 17, 16, 15, 15, 2],
     [16, 16, 16, 16, 18, 17, 16, 16],
     [15, 17, 16, 15, 15, 2, 16, 16],
     [16, 16, 18, 17, 16, 16, 15, 17],
     [16, 15, 15, 2, 16, 16, 16, 16],
     [18, 17, 16, 16, 15, 1, 17, 16],
     [15, 15, 2, 16, 16, 16, 16, 18],
     [17, 16, 16, 15, 24, 24, 24, 24],
     [27, 24, 27, 22, 20, 20, 20, 24],
     [24, 24, 24, 24, 26, 26, 26, 25],
     [42, 30, 30, 30, 34, 30, 29, 29],
     [34, 30, 34, 30, 30, 30, 38, 30],
     [34, 34, 30, 34, 30, 30, 30, 34],
     [32, 34, 34, 34, 34, 34, 34, 30],
     [46, 30, 30, 30, 34, 34, 34, 30],
     [38, 34, 30, 34, 30, 34, 34, 30],
     [34, 34, 30, 27, 24, 27, 24, 27],
     [27, 27, 27, 29, 28, 24, 24, 26],
     [25, 24, 24, 26, 25, 24, 24, 26],
     [25, 18, 22, 22, 18, 20, 23, 20],
     [18, 28, 25, 29, 29, 33, 33, 33],
     [33, 21, 33, 33, 33, 33, 21, 33],
     [33, 33, 33, 21, 33, 33, 33, 33],
     [21, 33, 33, 33, 33, 21, 33, 33],
     [33, 33, 21, 36, 33, 24, 21, 24],
     [21, 24, 21, 24, 21, 21, 23, 22],
     [21, 21, 23, 22, 21, 21, 23, 22],
     [33, 33, 21, 33, 33, 33, 33, 33],
     [33, 33, 35, 34, 33, 33, 33, 33]]"

definition sup_cond_lengths_4 :: "int list list" where
  "sup_cond_lengths_4 =
    [[36, 33, 33, 33, 21, 33, 33, 33],
     [33, 35, 34, 33, 33, 33, 36, 33],
     [33, 33, 21, 36, 33, 33, 33, 35],
     [34, 33, 33, 33, 36, 33, 33, 33],
     [21, 36, 33, 33, 33, 35, 34, 33],
     [33, 33, 36, 33, 33, 33, 21, 36],
     [33, 33, 33, 35, 34, 33, 33, 33],
     [36, 33, 33, 33, 21, 36, 33, 33],
     [33, 35, 34, 33, 33, 33, 21, 36],
     [33, 33, 33, 21, 36, 33, 33, 33],
     [35, 34, 33, 33, 33, 22, 22, 22],
     [22, 18, 22, 22, 22, 22, 22, 22],
     [22, 18, 28, 25, 25, 25, 25, 25],
     [25, 25, 25, 19, 5, 9, 0]]"

definition sup_key_offsets_1 :: "int list list" where
  "sup_key_offsets_1 =
    [[0, 0, 41, 45, 46, 48, 51, 59],
     [69, 85, 99, 112, 118, 124, 138, 144],
     [150, 160, 169, 177, 186, 192, 204, 212],
     [221, 227, 230, 233, 235, 237, 242, 243],
     [245, 250, 251, 253, 256, 273, 274, 276],
     [292, 312, 317, 318, 320, 324, 343, 344],
     [346, 364, 383, 387, 403, 405, 407, 409],
     [411, 413, 414, 416, 421, 427, 434, 441],
     [448, 455, 456, 463, 470, 477, 484, 485],
     [492, 499, 506, 513, 514, 521, 528, 535],
     [542, 543, 550, 557, 564, 571, 572, 579],
     [586, 593, 600, 601, 611, 619, 624, 625],
     [630, 631, 636, 637, 640, 643, 649, 652],
     [655, 658, 664, 667, 670, 673, 679, 682],
     [689, 696, 697, 704, 711, 718, 725, 733],
     [741, 749, 760, 770, 778, 786, 793, 800],
     [810, 819, 827, 835, 837, 843, 852, 861],
     [870, 882, 893, 902, 911, 919, 929, 938],
     [946, 954, 956, 965, 974, 983, 992, 1004],
     [1015, 1024, 1033, 1041, 1051, 1060, 1068, 1076],
     [1078, 1087, 1096, 1105, 1114, 1126, 1137, 1146],
     [1155, 1163, 1173, 1182, 1190, 1198, 1200, 1209],
     [1218, 1227, 1236, 1248, 1259, 1268, 1277, 1285],
     [1295, 1304, 1312, 1320, 1322, 1331, 1340, 1349],
     [1358, 1370, 1381, 1390, 1399, 1407, 1408, 1418],
     [1427, 1435, 1443, 1445, 1454, 1463, 1472, 1481],
     [1493, 1504, 1513, 1522, 1530, 1541, 1547, 1553],
     [1557, 1561, 1565, 1569, 1576, 1583, 1590, 1594],
     [1603, 1612, 1621, 1630, 1639, 1651, 1663, 1675],
     [1690, 1704, 1713, 1722, 1734, 1745, 1754, 1763],
     [1775, 1786, 1795, 1804, 1816, 1827, 1834, 1841],
     [1848, 1855, 1856, 1863, 1870, 1877, 1884, 1885],
     [1892, 1899, 1906, 1913, 1914, 1921, 1928, 1935],
     [1942, 1943, 1950, 1957, 1964, 1971, 1972, 1979],
     [1986, 1993, 2000, 2001, 2011, 2019, 2024, 2025],
     [2030, 2031, 2036, 2037, 2040, 2043, 2046, 2052],
     [2055, 2058, 2061, 2067, 2070, 2073, 2076, 2082],
     [2085, 2092, 2099, 2100, 2107, 2114, 2121, 2128],
     [2136, 2144, 2152, 2163, 2173, 2181, 2189, 2196],
     [2203, 2213, 2222, 2230, 2238, 2240, 2246, 2255],
     [2264, 2273, 2285, 2296, 2305, 2314, 2322, 2332],
     [2341, 2349, 2357, 2359, 2368, 2377, 2386, 2395],
     [2407, 2418, 2427, 2436, 2444, 2454, 2463, 2471],
     [2479, 2481, 2490, 2499, 2508, 2517, 2529, 2540],
     [2549, 2558, 2566, 2576, 2585, 2593, 2601, 2603],
     [2612, 2621, 2630, 2639, 2651, 2662, 2671, 2680],
     [2688, 2698, 2707, 2715, 2723, 2725, 2734, 2743],
     [2752, 2761, 2773, 2784, 2793, 2802, 2810, 2811],
     [2821, 2830, 2838, 2846, 2848, 2857, 2866, 2875],
     [2884, 2896, 2907, 2916, 2925, 2933, 2939, 2945],
     [2961, 2967, 2973, 2985, 3000, 3015, 3029, 3042],
     [3048, 3054, 3068, 3074, 3080, 3090, 3099, 3107],
     [3116, 3122, 3135, 3143, 3153, 3159, 3162, 3165],
     [3167, 3170, 3175, 3180, 3185, 3190, 3198, 3206],
     [3214, 3219, 3228, 3237, 3246, 3255, 3264, 3277],
     [3290, 3303, 3319, 3334, 3343, 3352, 3364, 3375],
     [3384, 3393, 3405, 3416, 3425, 3434, 3446, 3457],
     [3464, 3471, 3478, 3485, 3486, 3493, 3500, 3507],
     [3514, 3515, 3522, 3529, 3536, 3543, 3544, 3551],
     [3558, 3565, 3572, 3573, 3580, 3587, 3594, 3601],
     [3602, 3609, 3616, 3623, 3630, 3631, 3641, 3649],
     [3654, 3655, 3660, 3661, 3666, 3667, 3671, 3674],
     [3677, 3683, 3686, 3689, 3692, 3698, 3701, 3704],
     [3707, 3713, 3716, 3723, 3730, 3731, 3738, 3745],
     [3752, 3759, 3767, 3775, 3783, 3794, 3804, 3812],
     [3820, 3827, 3834, 3844, 3853, 3861, 3869, 3871],
     [3877, 3886, 3895, 3904, 3916, 3927, 3936, 3945],
     [3953, 3963, 3972, 3980, 3988, 3990, 3999, 4008],
     [4017, 4026, 4038, 4049, 4058, 4067, 4075, 4085],
     [4094, 4102, 4110, 4112, 4121, 4130, 4139, 4148],
     [4160, 4171, 4180, 4189, 4197, 4207, 4216, 4224],
     [4232, 4234, 4243, 4252, 4261, 4270, 4282, 4293],
     [4302, 4311, 4319, 4329, 4338, 4346, 4354, 4356],
     [4365, 4374, 4383, 4392, 4404, 4415, 4424, 4433],
     [4441, 4442, 4452, 4461, 4469, 4477, 4479, 4488],
     [4497, 4506, 4515, 4527, 4538, 4547, 4556, 4564],
     [4570, 4576, 4592, 4598, 4604, 4616, 4628, 4640],
     [4652, 4671, 4684, 4690, 4696, 4710, 4716, 4722],
     [4732, 4741, 4749, 4758, 4764, 4777, 4785, 4795],
     [4801, 4804, 4807, 4809, 4812, 4831, 4848, 4854],
     [4860, 4877, 4893, 4899, 4905, 4920, 4936, 4942],
     [4948, 4964, 4970, 4976, 4989, 5008, 5025, 5048],
     [5070, 5093, 5110, 5133, 5154, 5171, 5190, 5209],
     [5226, 5249, 5271, 5294, 5311, 5334, 5353, 5372],
     [5391, 5410, 5429, 5448, 5467, 5486, 5503, 5534],
     [5556, 5579, 5596, 5619, 5643, 5667, 5691, 5713],
     [5739, 5763, 5785, 5809, 5831, 5855, 5879, 5901],
     [5925, 5949, 5971, 5976, 5981, 5986, 5991, 5999],
     [6007, 6015, 6020, 6029, 6038, 6047, 6056, 6065],
     [6078, 6091, 6104, 6120, 6135, 6144, 6153, 6165],
     [6176, 6185, 6194, 6206, 6217, 6226, 6235, 6247],
     [6258, 6265, 6272, 6279, 6286, 6287, 6294, 6301],
     [6308, 6315, 6316, 6323, 6330, 6337, 6344, 6345],
     [6352, 6359, 6366, 6373, 6374, 6381, 6388, 6395],
     [6402, 6403, 6410, 6417, 6424, 6431, 6432, 6442],
     [6450, 6455, 6456, 6461, 6462, 6467, 6468, 6472],
     [6475, 6478, 6484, 6487, 6490, 6493, 6499, 6502],
     [6505, 6508, 6514, 6517, 6524, 6531, 6532, 6539],
     [6546, 6553, 6560, 6568, 6576, 6584, 6595, 6605],
     [6613, 6621, 6628, 6635, 6645, 6654, 6662, 6670],
     [6672, 6678, 6687, 6696, 6705, 6717, 6728, 6737],
     [6746, 6754, 6764, 6773, 6781, 6789, 6791, 6800],
     [6809, 6818, 6827, 6839, 6850, 6859, 6868, 6876],
     [6886, 6895, 6903, 6911, 6913, 6922, 6931, 6940],
     [6949, 6961, 6972, 6981, 6990, 6998, 7008, 7017],
     [7025, 7033, 7035, 7044, 7053, 7062, 7071, 7083],
     [7094, 7103, 7112, 7120, 7130, 7139, 7147, 7155],
     [7157, 7166, 7175, 7184, 7193, 7205, 7216, 7225],
     [7234, 7242, 7243, 7253, 7262, 7270, 7278, 7280],
     [7289, 7298, 7307, 7316, 7328, 7339, 7348, 7357],
     [7365, 7384, 7402, 7421, 7438, 7458, 7476, 7494],
     [7512, 7527, 7542, 7557, 7573, 7589, 7605, 7621],
     [7637, 7656, 7675, 7694, 7712, 7737, 7757, 7763],
     [7769, 7789, 7795, 7801, 7821, 7841, 7847, 7853],
     [7870, 7890, 7910, 7916, 7922, 7942, 7962, 7968],
     [7974, 7993, 7999, 8005, 8025, 8031, 8037, 8056],
     [8076, 8082, 8088, 8107, 8129, 8149, 8173, 8197],
     [8220, 8243, 8267, 8287, 8309, 8331, 8351, 8375],
     [8399, 8422, 8445, 8467, 8489, 8511, 8533, 8555],
     [8577, 8599, 8621, 8641, 8673, 8697, 8720, 8743],
     [8769, 8795, 8821, 8845, 8873, 8899, 8923, 8949],
     [8973, 8999, 9025, 9049, 9075, 9101, 9125, 9145],
     [9164, 9184, 9203, 9223, 9243, 9263, 9283, 9306],
     [9328, 9347, 9366, 9388, 9409, 9428, 9447, 9469],
     [9490, 9509, 9528, 9550, 9571, 9581, 9593, 9605],
     [9615, 9628, 9641, 9650, 9660, 9673, 9688, 9694],
     [9700, 9712, 9724, 9736, 9748, 9758, 9770, 9782],
     [9794, 9806, 9818, 9830, 9842, 9852, 9870, 9893],
     [9914, 9934, 9954, 9973, 9993, 10013, 10032, 10044],
     [10050, 10058, 10076, 10094, 10095, 10097, 10114, 10130],
     [10132, 10134, 10136, 10138, 10140, 10141, 10143, 10147],
     [10153, 10163, 10180, 10195, 10208, 10214, 10220, 10234],
     [10240, 10246, 10256, 10265, 10273, 10282, 10288, 10300],
     [10308, 10317, 10323, 10326, 10329, 10331, 10333, 10345],
     [10351, 10357, 10361, 10365, 10369, 10373, 10380, 10387],
     [10394, 10398, 10407, 10416, 10425, 10434, 10443, 10455],
     [10467, 10479, 10494, 10508, 10517, 10526, 10538, 10549],
     [10558, 10567, 10579, 10590, 10599, 10608, 10620, 10631],
     [10638, 10645, 10652, 10659, 10660, 10667, 10674, 10681],
     [10688, 10689, 10696, 10703, 10710, 10717, 10718, 10725],
     [10732, 10739, 10746, 10747, 10754, 10761, 10768, 10775],
     [10776, 10783, 10790, 10797, 10804, 10805, 10815, 10823],
     [10828, 10829, 10834, 10835, 10840, 10841, 10844, 10847],
     [10850, 10856, 10859, 10862, 10865, 10871, 10874, 10877],
     [10880, 10886, 10889, 10896, 10903, 10904, 10911, 10918],
     [10925, 10932, 10940, 10948, 10956, 10967, 10977, 10985],
     [10993, 11000, 11007, 11017, 11026, 11034, 11042, 11044],
     [11050, 11059, 11068, 11077, 11089, 11100, 11109, 11118],
     [11126, 11136, 11145, 11153, 11161, 11163, 11172, 11181],
     [11190, 11199, 11211, 11222, 11231, 11240, 11248, 11258]]"

definition sup_key_offsets_2 :: "int list list" where
  "sup_key_offsets_2 =
    [[11267, 11275, 11283, 11285, 11294, 11303, 11312, 11321],
     [11333, 11344, 11353, 11362, 11370, 11380, 11389, 11397],
     [11405, 11407, 11416, 11425, 11434, 11443, 11455, 11466],
     [11475, 11484, 11492, 11502, 11511, 11519, 11527, 11529],
     [11538, 11547, 11556, 11565, 11577, 11588, 11597, 11606],
     [11614, 11615, 11625, 11634, 11642, 11650, 11652, 11661],
     [11670, 11679, 11688, 11700, 11711, 11720, 11729, 11737],
     [11743, 11749, 11766, 11772, 11778, 11791, 11807, 11823],
     [11838, 11851, 11857, 11863, 11877, 11883, 11889, 11899],
     [11908, 11916, 11925, 11931, 11944, 11952, 11962, 11968],
     [11971, 11974, 11976, 11979, 11984, 11989, 11994, 11999],
     [12007, 12015, 12023, 12028, 12037, 12046, 12055, 12064],
     [12073, 12086, 12099, 12112, 12128, 12143, 12152, 12161],
     [12173, 12184, 12193, 12202, 12214, 12225, 12234, 12243],
     [12255, 12266, 12273, 12280, 12287, 12294, 12295, 12302],
     [12309, 12316, 12323, 12324, 12331, 12338, 12345, 12352],
     [12353, 12360, 12367, 12374, 12381, 12382, 12389, 12396],
     [12403, 12410, 12411, 12418, 12425, 12432, 12439, 12440],
     [12450, 12458, 12463, 12464, 12469, 12470, 12475, 12476],
     [12480, 12483, 12486, 12492, 12495, 12498, 12501, 12507],
     [12510, 12513, 12516, 12522, 12525, 12532, 12539, 12540],
     [12547, 12554, 12561, 12568, 12576, 12584, 12592, 12603],
     [12613, 12621, 12629, 12636, 12643, 12653, 12662, 12670],
     [12678, 12680, 12686, 12695, 12704, 12713, 12725, 12736],
     [12745, 12754, 12762, 12772, 12781, 12789, 12797, 12799],
     [12808, 12817, 12826, 12835, 12847, 12858, 12867, 12876],
     [12884, 12894, 12903, 12911, 12919, 12921, 12930, 12939],
     [12948, 12957, 12969, 12980, 12989, 12998, 13006, 13016],
     [13025, 13033, 13041, 13043, 13052, 13061, 13070, 13079],
     [13091, 13102, 13111, 13120, 13128, 13138, 13147, 13155],
     [13163, 13165, 13174, 13183, 13192, 13201, 13213, 13224],
     [13233, 13242, 13250, 13251, 13261, 13270, 13278, 13286],
     [13288, 13297, 13306, 13315, 13324, 13336, 13347, 13356],
     [13365, 13373, 13379, 13385, 13402, 13408, 13414, 13427],
     [13439, 13451, 13463, 13482, 13495, 13501, 13507, 13521],
     [13527, 13533, 13543, 13552, 13560, 13569, 13575, 13588],
     [13596, 13606, 13612, 13615, 13618, 13620, 13623, 13642],
     [13659, 13665, 13671, 13688, 13704, 13710, 13716, 13731],
     [13747, 13753, 13759, 13775, 13781, 13787, 13800, 13819],
     [13836, 13859, 13881, 13904, 13921, 13944, 13965, 13982],
     [14001, 14020, 14037, 14060, 14082, 14105, 14122, 14145],
     [14164, 14183, 14202, 14221, 14240, 14259, 14278, 14297],
     [14314, 14345, 14367, 14390, 14407, 14430, 14454, 14478],
     [14502, 14524, 14550, 14574, 14596, 14620, 14642, 14666],
     [14690, 14712, 14736, 14760, 14782, 14787, 14792, 14797],
     [14802, 14810, 14818, 14826, 14831, 14840, 14849, 14858],
     [14867, 14876, 14889, 14902, 14915, 14931, 14946, 14955],
     [14964, 14976, 14987, 14996, 15005, 15017, 15028, 15037],
     [15046, 15058, 15069, 15076, 15083, 15090, 15097, 15098],
     [15105, 15112, 15119, 15126, 15127, 15134, 15141, 15148],
     [15155, 15156, 15163, 15170, 15177, 15184, 15185, 15192],
     [15199, 15206, 15213, 15214, 15221, 15228, 15235, 15242],
     [15243, 15253, 15261, 15266, 15267, 15272, 15273, 15278],
     [15279, 15283, 15286, 15289, 15295, 15298, 15301, 15304],
     [15310, 15313, 15316, 15319, 15325, 15328, 15335, 15342],
     [15343, 15350, 15357, 15364, 15371, 15379, 15387, 15395],
     [15406, 15416, 15424, 15432, 15439, 15446, 15456, 15465],
     [15473, 15481, 15483, 15489, 15498, 15507, 15516, 15528],
     [15539, 15548, 15557, 15565, 15575, 15584, 15592, 15600],
     [15602, 15611, 15620, 15629, 15638, 15650, 15661, 15670],
     [15679, 15687, 15697, 15706, 15714, 15722, 15724, 15733],
     [15742, 15751, 15760, 15772, 15783, 15792, 15801, 15809],
     [15819, 15828, 15836, 15844, 15846, 15855, 15864, 15873],
     [15882, 15894, 15905, 15914, 15923, 15931, 15941, 15950],
     [15958, 15966, 15968, 15977, 15986, 15995, 16004, 16016],
     [16027, 16036, 16045, 16053, 16054, 16064, 16073, 16081],
     [16089, 16091, 16100, 16109, 16118, 16127, 16139, 16150],
     [16159, 16168, 16176, 16195, 16213, 16232, 16249, 16269],
     [16287, 16305, 16323, 16338, 16353, 16368, 16385, 16402],
     [16419, 16436, 16453, 16473, 16493, 16513, 16532, 16557],
     [16577, 16583, 16589, 16609, 16615, 16621, 16641, 16661],
     [16667, 16673, 16690, 16710, 16730, 16736, 16742, 16762],
     [16782, 16788, 16794, 16813, 16819, 16825, 16845, 16851],
     [16857, 16876, 16896, 16902, 16908, 16927, 16949, 16969],
     [16993, 17017, 17040, 17063, 17087, 17107, 17129, 17151],
     [17171, 17195, 17219, 17242, 17265, 17287, 17309, 17331],
     [17353, 17375, 17397, 17419, 17441, 17461, 17493, 17517],
     [17540, 17563, 17589, 17615, 17641, 17665, 17693, 17719],
     [17743, 17769, 17793, 17819, 17845, 17869, 17895, 17921],
     [17945, 17965, 17984, 18004, 18023, 18043, 18063, 18083],
     [18103, 18126, 18148, 18167, 18186, 18208, 18229, 18248],
     [18267, 18289, 18310, 18329, 18348, 18370, 18391, 18401],
     [18413, 18425, 18435, 18448, 18461, 18470, 18480, 18493],
     [18508, 18514, 18520, 18532, 18544, 18556, 18568, 18578],
     [18590, 18602, 18614, 18626, 18638, 18650, 18662, 18672],
     [18690, 18713, 18734, 18754, 18774, 18793, 18813, 18833],
     [18852, 18864, 18870, 18878, 18899, 18922, 18943, 18958],
     [18964, 18970, 18986, 18992, 18998, 19008, 19017, 19025],
     [19034, 19040, 19055, 19063, 19075, 19081, 19084, 19087],
     [19089, 19094, 19101, 19108, 19115, 19122, 19132, 19142],
     [19152, 19159, 19168, 19177, 19186, 19195, 19204, 19219],
     [19234, 19249, 19267, 19284, 19293, 19302, 19314, 19325],
     [19334, 19343, 19355, 19366, 19375, 19384, 19396, 19407],
     [19414, 19421, 19428, 19435, 19436, 19443, 19450, 19457],
     [19464, 19465, 19472, 19479, 19486, 19493, 19494, 19501],
     [19508, 19515, 19522, 19523, 19530, 19537, 19544, 19551],
     [19552, 19559, 19566, 19573, 19580, 19581, 19591, 19599],
     [19604, 19605, 19610, 19611, 19616, 19617, 19623, 19626],
     [19629, 19635, 19638, 19641, 19644, 19650, 19653, 19656],
     [19659, 19665, 19668, 19675, 19682, 19683, 19690, 19697],
     [19704, 19711, 19719, 19727, 19735, 19746, 19756, 19764],
     [19772, 19779, 19786, 19796, 19805, 19813, 19821, 19823],
     [19829, 19838, 19847, 19856, 19868, 19879, 19888, 19897],
     [19905, 19915, 19924, 19932, 19940, 19942, 19951, 19960],
     [19969, 19978, 19990, 20001, 20010, 20019, 20027, 20037],
     [20046, 20054, 20062, 20064, 20073, 20082, 20091, 20100],
     [20112, 20123, 20132, 20141, 20149, 20159, 20168, 20176],
     [20184, 20186, 20195, 20204, 20213, 20222, 20234, 20245],
     [20254, 20263, 20271, 20281, 20290, 20298, 20306, 20308],
     [20317, 20326, 20335, 20344, 20356, 20367, 20376, 20385],
     [20393, 20394, 20404, 20413, 20421, 20429, 20431, 20440],
     [20449, 20458, 20467, 20479, 20490, 20499, 20508, 20516],
     [20522, 20528, 20549, 20555, 20561, 20579, 20585, 20591],
     [20610, 20632, 20654, 20675, 20690, 20696, 20702, 20718],
     [20724, 20730, 20740, 20749, 20757, 20766, 20772, 20788],
     [20796, 20809, 20815, 20818, 20821, 20823, 20829, 20837],
     [20845, 20853, 20861, 20872, 20883, 20894, 20902, 20911],
     [20920, 20929, 20938, 20947, 20963, 20979, 20995, 21014],
     [21032, 21041, 21050, 21062, 21073, 21082, 21091, 21103],
     [21114, 21123, 21132, 21144, 21155, 21162, 21169, 21176],
     [21183, 21184, 21191, 21198, 21205, 21212, 21213, 21220],
     [21227, 21234, 21241, 21242, 21249, 21256, 21263, 21270],
     [21271, 21278, 21285, 21292, 21299, 21300, 21307, 21314],
     [21321, 21328, 21329, 21339, 21347, 21352, 21353, 21358],
     [21359, 21364, 21365, 21372, 21375, 21378, 21384, 21387],
     [21390, 21393, 21399, 21402, 21405, 21408, 21414, 21417],
     [21424, 21431, 21432, 21439, 21446, 21453, 21460, 21468],
     [21476, 21484, 21495, 21505, 21513, 21521, 21528, 21535],
     [21545, 21554, 21562, 21570, 21572, 21578, 21587, 21596],
     [21605, 21617, 21628, 21637, 21646, 21654, 21664, 21673],
     [21681, 21689, 21691, 21700, 21709, 21718, 21727, 21739],
     [21750, 21759, 21768, 21776, 21786, 21795, 21803, 21811],
     [21813, 21822, 21831, 21840, 21849, 21861, 21872, 21881],
     [21890, 21898, 21908, 21917, 21925, 21933, 21935, 21944],
     [21953, 21962, 21971, 21983, 21994, 22003, 22012, 22020],
     [22030, 22039, 22047, 22055, 22057, 22066, 22075, 22084],
     [22093, 22105, 22116, 22125, 22134, 22142, 22143, 22153],
     [22162, 22170, 22178, 22180, 22189, 22198, 22207, 22216],
     [22228, 22239, 22248, 22257, 22265, 22271, 22277, 22298],
     [22304, 22310, 22329, 22352, 22375, 22398, 22417, 22432],
     [22438, 22444, 22460, 22466, 22472, 22482, 22491, 22499],
     [22508, 22514, 22529, 22537, 22549, 22555, 22558, 22561],
     [22563, 22568, 22575, 22582, 22589, 22596, 22606, 22616],
     [22626, 22633, 22642, 22651, 22660, 22669, 22678, 22693],
     [22708, 22723, 22741, 22758, 22767, 22776, 22788, 22799],
     [22808, 22817, 22829, 22840, 22849, 22858, 22870, 22881],
     [22888, 22895, 22902, 22909, 22910, 22917, 22924, 22931],
     [22938, 22939, 22946, 22953, 22960, 22967, 22968, 22975],
     [22982, 22989, 22996, 22997, 23004, 23011, 23018, 23025],
     [23026, 23033, 23040, 23047, 23054, 23055, 23065, 23073]]"

definition sup_key_offsets_3 :: "int list list" where
  "sup_key_offsets_3 =
    [[23078, 23079, 23084, 23085, 23090, 23091, 23097, 23100],
     [23103, 23109, 23112, 23115, 23118, 23124, 23127, 23130],
     [23133, 23139, 23142, 23149, 23156, 23157, 23164, 23171],
     [23178, 23185, 23193, 23201, 23209, 23220, 23230, 23238],
     [23246, 23253, 23260, 23270, 23279, 23287, 23295, 23297],
     [23303, 23312, 23321, 23330, 23342, 23353, 23362, 23371],
     [23379, 23389, 23398, 23406, 23414, 23416, 23425, 23434],
     [23443, 23452, 23464, 23475, 23484, 23493, 23501, 23511],
     [23520, 23528, 23536, 23538, 23547, 23556, 23565, 23574],
     [23586, 23597, 23606, 23615, 23623, 23633, 23642, 23650],
     [23658, 23660, 23669, 23678, 23687, 23696, 23708, 23719],
     [23728, 23737, 23745, 23755, 23764, 23772, 23780, 23782],
     [23791, 23800, 23809, 23818, 23830, 23841, 23850, 23859],
     [23867, 23868, 23878, 23887, 23895, 23903, 23905, 23914],
     [23923, 23932, 23941, 23953, 23964, 23973, 23982, 23990],
     [24008, 24026, 24044, 24061, 24084, 24102, 24124, 24144],
     [24161, 24178, 24195, 24216, 24237, 24258, 24279, 24300],
     [24324, 24348, 24372, 24395, 24415, 24433, 24453, 24471],
     [24491, 24514, 24537, 24560, 24586, 24611, 24629, 24647],
     [24668, 24688, 24706, 24724, 24745, 24765, 24783, 24801],
     [24822, 24842, 24863, 24886, 24909, 24930, 24943, 24959],
     [24971, 24977, 24988, 25029, 25091, 25147, 25195, 25213],
     [25231, 25280, 25298, 25316, 25346, 25373, 25397, 25424],
     [25442, 25478, 25502, 25529, 25547, 25556, 25565, 25571],
     [25577, 25589, 25601, 25613, 25625, 25646, 25667, 25688],
     [25700, 25727, 25754, 25781, 25808, 25835, 25871, 25907],
     [25943, 25988, 26030, 26057, 26084, 26120, 26153, 26180],
     [26207, 26243, 26276, 26303, 26330, 26366, 26399, 26420],
     [26441, 26462, 26483, 26486, 26507, 26528, 26549, 26570],
     [26573, 26594, 26615, 26636, 26657, 26660, 26681, 26702],
     [26723, 26744, 26747, 26768, 26789, 26810, 26831, 26834],
     [26855, 26876, 26897, 26918, 26921, 26951, 26975, 26990],
     [26993, 27008, 27011, 27026, 27029, 27038, 27047, 27056],
     [27074, 27083, 27092, 27101, 27119, 27128, 27137, 27146],
     [27164, 27173, 27194, 27215, 27218, 27239, 27260, 27281],
     [27302, 27326, 27350, 27374, 27407, 27437, 27461, 27485],
     [27506, 27527, 27557, 27584, 27608, 27632, 27638, 27656],
     [27683, 27710, 27737, 27773, 27806, 27833, 27860, 27884],
     [27914, 27941, 27965, 27989, 27995, 28022, 28049, 28076],
     [28103, 28139, 28172, 28199, 28226, 28250, 28280, 28307],
     [28331, 28355, 28361, 28388, 28415, 28442, 28469, 28505],
     [28538, 28565, 28592, 28616, 28646, 28673, 28697, 28721],
     [28727, 28754, 28781, 28808, 28835, 28871, 28904, 28931],
     [28958, 28982, 29012, 29039, 29063, 29087, 29093, 29120],
     [29147, 29174, 29201, 29237, 29270, 29297, 29324, 29348],
     [29351, 29381, 29408, 29432, 29456, 29462, 29489, 29516],
     [29543, 29570, 29606, 29639, 29666, 29693, 29717, 29735],
     [29753, 29810, 29828, 29846, 29893, 29911, 29929, 29990],
     [30055, 30093, 30131, 30194, 30257, 30294, 30331, 30381],
     [30443, 30509, 30547, 30585, 30649, 30713, 30750, 30787],
     [30846, 30905, 30961, 31009, 31027, 31045, 31094, 31112],
     [31130, 31160, 31187, 31211, 31238, 31256, 31295, 31319],
     [31349, 31367, 31376, 31385, 31391, 31400, 31415, 31430],
     [31445, 31460, 31484, 31508, 31532, 31547, 31574, 31601],
     [31628, 31655, 31682, 31721, 31760, 31799, 31847, 31892],
     [31919, 31946, 31982, 32015, 32042, 32069, 32105, 32138],
     [32165, 32192, 32228, 32261, 32282, 32303, 32324, 32345],
     [32348, 32369, 32390, 32411, 32432, 32435, 32456, 32477],
     [32498, 32519, 32522, 32543, 32564, 32585, 32606, 32609],
     [32630, 32651, 32672, 32693, 32696, 32717, 32738, 32759],
     [32780, 32783, 32813, 32837, 32852, 32855, 32870, 32873],
     [32888, 32891, 32903, 32912, 32921, 32939, 32948, 32957],
     [32966, 32984, 32993, 33002, 33011, 33029, 33038, 33059],
     [33080, 33083, 33104, 33125, 33146, 33167, 33191, 33215],
     [33239, 33272, 33302, 33326, 33350, 33371, 33392, 33422],
     [33449, 33473, 33497, 33503, 33521, 33548, 33575, 33602],
     [33638, 33671, 33698, 33725, 33749, 33779, 33806, 33830],
     [33854, 33860, 33887, 33914, 33941, 33968, 34004, 34037],
     [34064, 34091, 34115, 34145, 34172, 34196, 34220, 34226],
     [34253, 34280, 34307, 34334, 34370, 34403, 34430, 34457],
     [34481, 34511, 34538, 34562, 34586, 34592, 34619, 34646],
     [34673, 34700, 34736, 34769, 34796, 34823, 34847, 34877],
     [34904, 34928, 34952, 34958, 34985, 35012, 35039, 35066],
     [35102, 35135, 35162, 35189, 35213, 35216, 35246, 35273],
     [35297, 35321, 35327, 35354, 35381, 35408, 35435, 35471],
     [35504, 35531, 35558, 35582, 35600, 35618, 35675, 35693],
     [35711, 35761, 35823, 35889, 35927, 35965, 36029, 36093],
     [36130, 36167, 36214, 36261, 36308, 36368, 36416, 36434],
     [36452, 36501, 36519, 36537, 36567, 36594, 36618, 36645],
     [36663, 36701, 36725, 36754, 36772, 36781, 36790, 36796],
     [36804, 36873, 36938, 36976, 37014, 37077, 37139, 37176],
     [37213, 37249, 37285, 37321, 37357, 37376, 37412, 37448],
     [37484, 37520, 37539, 37575, 37611, 37647, 37683, 37702],
     [37738, 37774, 37810, 37846, 37865, 37901, 37937, 37973],
     [38009, 38028, 38064, 38100, 38136, 38172, 38191, 38233],
     [38272, 38301, 38321, 38350, 38370, 38399, 38417, 38438],
     [38463, 38488, 38519, 38545, 38571, 38597, 38629, 38656],
     [38682, 38708, 38740, 38767, 38803, 38839, 38858, 38894],
     [38931, 38968, 39005, 39044, 39083, 39122, 39167, 39210],
     [39249, 39288, 39325, 39361, 39404, 39445, 39483, 39521],
     [39542, 39577, 39618, 39659, 39700, 39747, 39792, 39833],
     [39874, 39912, 39955, 39996, 40034, 40072, 40093, 40134],
     [40175, 40216, 40257, 40304, 40349, 40390, 40431, 40469],
     [40512, 40553, 40591, 40629, 40650, 40691, 40732, 40773],
     [40814, 40861, 40906, 40947, 40988, 41026, 41069, 41110],
     [41148, 41186, 41207, 41248, 41289, 41330, 41371, 41418],
     [41463, 41504, 41545, 41583, 41626, 41667, 41705, 41743],
     [41764, 41805, 41846, 41887, 41928, 41975, 42020, 42061],
     [42102, 42140, 42159, 42202, 42243, 42281, 42319, 42340],
     [42381, 42422, 42463, 42504, 42551, 42596, 42637, 42678],
     [42716, 42785, 42850, 42912, 42972, 43034, 43084, 43146],
     [43219, 43284, 43353, 43422, 43487, 43549, 43609, 43671],
     [43721, 43783, 43852, 43921, 43990, 44059, 44128, 44197],
     [44266, 44335, 44400, 44478, 44538, 44600, 44650, 44712],
     [44776, 44840, 44904, 44964, 45032, 45096, 45156, 45220],
     [45280, 45344, 45408, 45468, 45532, 45596, 45656, 45670],
     [45684, 45698, 45712, 45735, 45758, 45781, 45795, 45822],
     [45849, 45876, 45903, 45930, 45968, 46006, 46044, 46091],
     [46135, 46162, 46189, 46225, 46258, 46285, 46312, 46348],
     [46381, 46408, 46435, 46471, 46504, 46525, 46546, 46567],
     [46588, 46591, 46612, 46633, 46654, 46675, 46678, 46699],
     [46720, 46741, 46762, 46765, 46786, 46807, 46828, 46849],
     [46852, 46873, 46894, 46915, 46936, 46939, 46960, 46981],
     [47002, 47023, 47026, 47056, 47080, 47095, 47098, 47113],
     [47116, 47131, 47134, 47145, 47154, 47163, 47181, 47190],
     [47199, 47208, 47226, 47235, 47244, 47253, 47271, 47280],
     [47301, 47322, 47325, 47346, 47367, 47388, 47409, 47433],
     [47457, 47481, 47514, 47544, 47568, 47592, 47613, 47634],
     [47664, 47691, 47715, 47739, 47745, 47763, 47790, 47817],
     [47844, 47880, 47913, 47940, 47967, 47991, 48021, 48048],
     [48072, 48096, 48102, 48129, 48156, 48183, 48210, 48246],
     [48279, 48306, 48333, 48357, 48387, 48414, 48438, 48462],
     [48468, 48495, 48522, 48549, 48576, 48612, 48645, 48672],
     [48699, 48723, 48753, 48780, 48804, 48828, 48834, 48861],
     [48888, 48915, 48942, 48978, 49011, 49038, 49065, 49089],
     [49119, 49146, 49170, 49194, 49200, 49227, 49254, 49281],
     [49308, 49344, 49377, 49404, 49431, 49455, 49458, 49488],
     [49515, 49539, 49563, 49569, 49596, 49623, 49650, 49677],
     [49713, 49746, 49773, 49800, 49824, 49881, 49938, 49995],
     [50049, 50112, 50169, 50229, 50290, 50342, 50394, 50446],
     [50503, 50560, 50617, 50674, 50731, 50797, 50863, 50929],
     [50992, 51067, 51135, 51173, 51211, 51278, 51344, 51381],
     [51418, 51490, 51558, 51623, 51687, 51749, 51811, 51887],
     [51955, 52027, 52099, 52167, 52232, 52296, 52358, 52420],
     [52492, 52564, 52636, 52708, 52780, 52852, 52924, 52996],
     [53064, 53145, 53209, 53271, 53333, 53401, 53469, 53537],
     [53601, 53673, 53741, 53805, 53873, 53937, 54005, 54073],
     [54137, 54205, 54273, 54337, 54400, 54457, 54520, 54577],
     [54640, 54703, 54766, 54829, 54901, 54970, 55027, 55084],
     [55150, 55213, 55270, 55327, 55393, 55456, 55513, 55570],
     [55636, 55699, 55740, 55787, 55834, 55875, 55914, 55954],
     [55991, 56031, 56090, 56151, 56188, 56225, 56260, 56295],
     [56330, 56365, 56383, 56418, 56453, 56488, 56523, 56541],
     [56576, 56611, 56646, 56681, 56699, 56734, 56769, 56804],
     [56839, 56857, 56892, 56927, 56962, 56997, 57015, 57050],
     [57085, 57120, 57155, 57173, 57214, 57252, 57280, 57299],
     [57327, 57346, 57374, 57391, 57411, 57435, 57459, 57489],
     [57514, 57539, 57564, 57595, 57621, 57646, 57671, 57702],
     [57728, 57763, 57798, 57816, 57851, 57887, 57923, 57959],
     [57997, 58035, 58073, 58117, 58159, 58197, 58235, 58271]]"

definition sup_key_offsets_4 :: "int list list" where
  "sup_key_offsets_4 =
    [[58306, 58348, 58388, 58425, 58462, 58482, 58516, 58556],
     [58596, 58636, 58682, 58726, 58766, 58806, 58843, 58885],
     [58925, 58962, 58999, 59019, 59059, 59099, 59139, 59179],
     [59225, 59269, 59309, 59349, 59386, 59428, 59468, 59505],
     [59542, 59562, 59602, 59642, 59682, 59722, 59768, 59812],
     [59852, 59892, 59929, 59971, 60011, 60048, 60085, 60105],
     [60145, 60185, 60225, 60265, 60311, 60355, 60395, 60435],
     [60472, 60514, 60554, 60591, 60628, 60648, 60688, 60728],
     [60768, 60808, 60854, 60898, 60938, 60978, 61015, 61033],
     [61075, 61115, 61152, 61189, 61209, 61249, 61289, 61329],
     [61369, 61415, 61459, 61499, 61539, 61576, 61620, 61664],
     [61708, 61752, 61792, 61836, 61880, 61924, 61968, 62012],
     [62056, 62100, 62140, 62200, 62261, 62322, 62383, 62444],
     [62505, 62566, 62627, 62688, 62724, 62742, 62767]]"

definition sup_single_lengths_1 :: "int list list" where
  "sup_single_lengths_1 =
    [[0, 21, 4, 1, 2, 3, 4, 2],
     [10, 8, 7, 0, 0, 6, 0, 0],
     [4, 3, 2, 3, 0, 6, 2, 3],
     [2, 1, 1, 0, 2, 5, 1, 2],
     [5, 1, 2, 3, 7, 1, 2, 6],
     [10, 5, 1, 2, 4, 9, 1, 2],
     [8, 9, 4, 4, 0, 0, 0, 0],
     [0, 1, 2, 5, 0, 1, 1, 1],
     [1, 1, 1, 1, 1, 1, 1, 1],
     [1, 1, 1, 1, 1, 1, 1, 1],
     [1, 1, 1, 1, 1, 1, 1, 1],
     [1, 1, 1, 4, 2, 3, 1, 3],
     [1, 3, 1, 1, 1, 2, 1, 1],
     [1, 2, 1, 1, 1, 2, 1, 1],
     [1, 1, 1, 1, 1, 1, 2, 2],
     [2, 3, 2, 2, 2, 1, 1, 4],
     [3, 2, 2, 2, 0, 3, 3, 3],
     [4, 3, 3, 3, 2, 4, 3, 2],
     [2, 2, 3, 3, 3, 3, 4, 3],
     [3, 3, 2, 4, 3, 2, 2, 2],
     [3, 3, 3, 3, 4, 3, 3, 3],
     [2, 4, 3, 2, 2, 2, 3, 3],
     [3, 3, 4, 3, 3, 3, 2, 4],
     [3, 2, 2, 2, 3, 3, 3, 3],
     [4, 3, 3, 3, 2, 1, 4, 3],
     [2, 2, 2, 3, 3, 3, 3, 4],
     [3, 3, 3, 2, 5, 0, 0, 2],
     [2, 2, 2, 3, 3, 3, 2, 3],
     [3, 3, 3, 3, 6, 6, 6, 7],
     [6, 3, 3, 4, 3, 3, 3, 4],
     [3, 3, 3, 4, 3, 1, 1, 1],
     [1, 1, 1, 1, 1, 1, 1, 1],
     [1, 1, 1, 1, 1, 1, 1, 1],
     [1, 1, 1, 1, 1, 1, 1, 1],
     [1, 1, 1, 4, 2, 3, 1, 3],
     [1, 3, 1, 3, 1, 1, 2, 1],
     [1, 1, 2, 1, 1, 1, 2, 1],
     [1, 1, 1, 1, 1, 1, 1, 2],
     [2, 2, 3, 2, 2, 2, 1, 1],
     [4, 3, 2, 2, 2, 0, 3, 3],
     [3, 4, 3, 3, 3, 2, 4, 3],
     [2, 2, 2, 3, 3, 3, 3, 4],
     [3, 3, 3, 2, 4, 3, 2, 2],
     [2, 3, 3, 3, 3, 4, 3, 3],
     [3, 2, 4, 3, 2, 2, 2, 3],
     [3, 3, 3, 4, 3, 3, 3, 2],
     [4, 3, 2, 2, 2, 3, 3, 3],
     [3, 4, 3, 3, 3, 2, 1, 4],
     [3, 2, 2, 2, 3, 3, 3, 3],
     [4, 3, 3, 3, 2, 0, 0, 8],
     [0, 0, 6, 9, 9, 8, 7, 0],
     [0, 6, 0, 0, 4, 3, 2, 3],
     [0, 7, 2, 4, 2, 1, 1, 0],
     [3, 3, 3, 3, 3, 4, 4, 4],
     [3, 3, 3, 3, 3, 3, 7, 7],
     [7, 8, 7, 3, 3, 4, 3, 3],
     [3, 4, 3, 3, 3, 4, 3, 1],
     [1, 1, 1, 1, 1, 1, 1, 1],
     [1, 1, 1, 1, 1, 1, 1, 1],
     [1, 1, 1, 1, 1, 1, 1, 1],
     [1, 1, 1, 1, 1, 4, 2, 3],
     [1, 3, 1, 3, 1, 4, 1, 1],
     [2, 1, 1, 1, 2, 1, 1, 1],
     [2, 1, 1, 1, 1, 1, 1, 1],
     [1, 2, 2, 2, 3, 2, 2, 2],
     [1, 1, 4, 3, 2, 2, 2, 0],
     [3, 3, 3, 4, 3, 3, 3, 2],
     [4, 3, 2, 2, 2, 3, 3, 3],
     [3, 4, 3, 3, 3, 2, 4, 3],
     [2, 2, 2, 3, 3, 3, 3, 4],
     [3, 3, 3, 2, 4, 3, 2, 2],
     [2, 3, 3, 3, 3, 4, 3, 3],
     [3, 2, 4, 3, 2, 2, 2, 3],
     [3, 3, 3, 4, 3, 3, 3, 2],
     [1, 4, 3, 2, 2, 2, 3, 3],
     [3, 3, 4, 3, 3, 3, 2, 0],
     [0, 8, 0, 0, 6, 4, 4, 4],
     [11, 7, 0, 0, 6, 0, 0, 4],
     [3, 2, 3, 0, 7, 2, 4, 2],
     [1, 1, 0, 3, 11, 9, 0, 0],
     [9, 8, 0, 0, 7, 8, 0, 0],
     [8, 0, 0, 5, 11, 9, 13, 12],
     [7, 7, 7, 13, 9, 11, 11, 9],
     [13, 12, 7, 7, 7, 11, 11, 11],
     [11, 11, 11, 11, 11, 9, 21, 12],
     [7, 7, 7, 14, 14, 14, 12, 16],
     [14, 12, 14, 12, 14, 14, 12, 14],
     [14, 12, 3, 3, 3, 3, 4, 4],
     [4, 3, 3, 3, 3, 3, 3, 7],
     [7, 7, 8, 7, 3, 3, 4, 3],
     [3, 3, 4, 3, 3, 3, 4, 3],
     [1, 1, 1, 1, 1, 1, 1, 1],
     [1, 1, 1, 1, 1, 1, 1, 1],
     [1, 1, 1, 1, 1, 1, 1, 1],
     [1, 1, 1, 1, 1, 1, 4, 2],
     [3, 1, 3, 1, 3, 1, 4, 1],
     [1, 2, 1, 1, 1, 2, 1, 1],
     [1, 2, 1, 1, 1, 1, 1, 1],
     [1, 1, 2, 2, 2, 3, 2, 2],
     [2, 1, 1, 4, 3, 2, 2, 2],
     [0, 3, 3, 3, 4, 3, 3, 3],
     [2, 4, 3, 2, 2, 2, 3, 3],
     [3, 3, 4, 3, 3, 3, 2, 4],
     [3, 2, 2, 2, 3, 3, 3, 3],
     [4, 3, 3, 3, 2, 4, 3, 2],
     [2, 2, 3, 3, 3, 3, 4, 3],
     [3, 3, 2, 4, 3, 2, 2, 2],
     [3, 3, 3, 3, 4, 3, 3, 3],
     [2, 1, 4, 3, 2, 2, 2, 3],
     [3, 3, 3, 4, 3, 3, 3, 2],
     [11, 10, 11, 9, 12, 10, 10, 8],
     [7, 7, 7, 8, 8, 8, 8, 8],
     [9, 9, 9, 8, 19, 14, 0, 0],
     [14, 0, 0, 14, 14, 0, 0, 11],
     [14, 14, 0, 0, 12, 12, 0, 0],
     [13, 0, 0, 14, 0, 0, 13, 14],
     [0, 0, 13, 16, 14, 16, 16, 7],
     [7, 18, 14, 16, 16, 14, 16, 16],
     [7, 7, 16, 16, 16, 16, 16, 16],
     [16, 16, 14, 24, 16, 7, 7, 18],
     [18, 18, 16, 20, 18, 16, 18, 16],
     [18, 18, 16, 18, 18, 16, 12, 11],
     [12, 11, 12, 12, 12, 12, 13, 12],
     [11, 11, 12, 11, 11, 11, 12, 11],
     [11, 11, 12, 11, 2, 4, 4, 2],
     [3, 3, 3, 4, 5, 7, 0, 0],
     [6, 6, 6, 6, 4, 6, 6, 6],
     [6, 6, 6, 6, 4, 8, 9, 9],
     [12, 10, 9, 12, 10, 9, 2, 0],
     [2, 8, 8, 1, 2, 7, 4, 0],
     [0, 0, 0, 0, 1, 2, 4, 0],
     [2, 11, 9, 7, 0, 0, 6, 0],
     [0, 4, 3, 2, 3, 0, 6, 2],
     [3, 2, 1, 1, 0, 2, 6, 0],
     [0, 2, 2, 2, 2, 3, 3, 3],
     [2, 3, 3, 3, 3, 3, 6, 6],
     [6, 7, 6, 3, 3, 4, 3, 3],
     [3, 4, 3, 3, 3, 4, 3, 1],
     [1, 1, 1, 1, 1, 1, 1, 1],
     [1, 1, 1, 1, 1, 1, 1, 1],
     [1, 1, 1, 1, 1, 1, 1, 1],
     [1, 1, 1, 1, 1, 4, 2, 3],
     [1, 3, 1, 3, 1, 3, 1, 1],
     [2, 1, 1, 1, 2, 1, 1, 1],
     [2, 1, 1, 1, 1, 1, 1, 1],
     [1, 2, 2, 2, 3, 2, 2, 2],
     [1, 1, 4, 3, 2, 2, 2, 0],
     [3, 3, 3, 4, 3, 3, 3, 2],
     [4, 3, 2, 2, 2, 3, 3, 3],
     [3, 4, 3, 3, 3, 2, 4, 3]]"

definition sup_single_lengths_2 :: "int list list" where
  "sup_single_lengths_2 =
    [[2, 2, 2, 3, 3, 3, 3, 4],
     [3, 3, 3, 2, 4, 3, 2, 2],
     [2, 3, 3, 3, 3, 4, 3, 3],
     [3, 2, 4, 3, 2, 2, 2, 3],
     [3, 3, 3, 4, 3, 3, 3, 2],
     [1, 4, 3, 2, 2, 2, 3, 3],
     [3, 3, 4, 3, 3, 3, 2, 0],
     [0, 9, 0, 0, 7, 10, 10, 9],
     [7, 0, 0, 6, 0, 0, 4, 3],
     [2, 3, 0, 7, 2, 4, 2, 1],
     [1, 0, 3, 3, 3, 3, 3, 4],
     [4, 4, 3, 3, 3, 3, 3, 3],
     [7, 7, 7, 8, 7, 3, 3, 4],
     [3, 3, 3, 4, 3, 3, 3, 4],
     [3, 1, 1, 1, 1, 1, 1, 1],
     [1, 1, 1, 1, 1, 1, 1, 1],
     [1, 1, 1, 1, 1, 1, 1, 1],
     [1, 1, 1, 1, 1, 1, 1, 4],
     [2, 3, 1, 3, 1, 3, 1, 4],
     [1, 1, 2, 1, 1, 1, 2, 1],
     [1, 1, 2, 1, 1, 1, 1, 1],
     [1, 1, 1, 2, 2, 2, 3, 2],
     [2, 2, 1, 1, 4, 3, 2, 2],
     [2, 0, 3, 3, 3, 4, 3, 3],
     [3, 2, 4, 3, 2, 2, 2, 3],
     [3, 3, 3, 4, 3, 3, 3, 2],
     [4, 3, 2, 2, 2, 3, 3, 3],
     [3, 4, 3, 3, 3, 2, 4, 3],
     [2, 2, 2, 3, 3, 3, 3, 4],
     [3, 3, 3, 2, 4, 3, 2, 2],
     [2, 3, 3, 3, 3, 4, 3, 3],
     [3, 2, 1, 4, 3, 2, 2, 2],
     [3, 3, 3, 3, 4, 3, 3, 3],
     [2, 0, 0, 9, 0, 0, 7, 4],
     [4, 4, 11, 7, 0, 0, 6, 0],
     [0, 4, 3, 2, 3, 0, 7, 2],
     [4, 2, 1, 1, 0, 3, 11, 9],
     [0, 0, 9, 8, 0, 0, 7, 8],
     [0, 0, 8, 0, 0, 5, 11, 9],
     [13, 12, 7, 7, 7, 13, 9, 11],
     [11, 9, 13, 12, 7, 7, 7, 11],
     [11, 11, 11, 11, 11, 11, 11, 9],
     [21, 12, 7, 7, 7, 14, 14, 14],
     [12, 16, 14, 12, 14, 12, 14, 14],
     [12, 14, 14, 12, 3, 3, 3, 3],
     [4, 4, 4, 3, 3, 3, 3, 3],
     [3, 7, 7, 7, 8, 7, 3, 3],
     [4, 3, 3, 3, 4, 3, 3, 3],
     [4, 3, 1, 1, 1, 1, 1, 1],
     [1, 1, 1, 1, 1, 1, 1, 1],
     [1, 1, 1, 1, 1, 1, 1, 1],
     [1, 1, 1, 1, 1, 1, 1, 1],
     [4, 2, 3, 1, 3, 1, 3, 1],
     [4, 1, 1, 2, 1, 1, 1, 2],
     [1, 1, 1, 2, 1, 1, 1, 1],
     [1, 1, 1, 1, 2, 2, 2, 3],
     [2, 2, 2, 1, 1, 4, 3, 2],
     [2, 2, 0, 3, 3, 3, 4, 3],
     [3, 3, 2, 4, 3, 2, 2, 2],
     [3, 3, 3, 3, 4, 3, 3, 3],
     [2, 4, 3, 2, 2, 2, 3, 3],
     [3, 3, 4, 3, 3, 3, 2, 4],
     [3, 2, 2, 2, 3, 3, 3, 3],
     [4, 3, 3, 3, 2, 4, 3, 2],
     [2, 2, 3, 3, 3, 3, 4, 3],
     [3, 3, 2, 1, 4, 3, 2, 2],
     [2, 3, 3, 3, 3, 4, 3, 3],
     [3, 2, 11, 10, 11, 9, 12, 10],
     [10, 8, 7, 7, 7, 9, 9, 9],
     [9, 9, 10, 10, 10, 9, 19, 14],
     [0, 0, 14, 0, 0, 14, 14, 0],
     [0, 11, 14, 14, 0, 0, 12, 12],
     [0, 0, 13, 0, 0, 14, 0, 0],
     [13, 14, 0, 0, 13, 16, 14, 16],
     [16, 7, 7, 18, 14, 16, 16, 14],
     [16, 16, 7, 7, 16, 16, 16, 16],
     [16, 16, 16, 16, 14, 24, 16, 7],
     [7, 18, 18, 18, 16, 20, 18, 16],
     [18, 16, 18, 18, 16, 18, 18, 16],
     [12, 11, 12, 11, 12, 12, 12, 12],
     [13, 12, 11, 11, 12, 11, 11, 11],
     [12, 11, 11, 11, 12, 11, 2, 4],
     [4, 2, 3, 3, 3, 4, 5, 7],
     [0, 0, 6, 6, 6, 6, 4, 6],
     [6, 6, 6, 6, 6, 6, 4, 8],
     [9, 9, 12, 10, 9, 12, 10, 9],
     [2, 0, 2, 11, 15, 13, 7, 0],
     [0, 6, 0, 0, 4, 3, 2, 3],
     [0, 9, 2, 6, 2, 1, 1, 0],
     [5, 5, 5, 5, 5, 6, 6, 6],
     [5, 3, 3, 3, 3, 3, 9, 9],
     [9, 10, 9, 3, 3, 4, 3, 3],
     [3, 4, 3, 3, 3, 4, 3, 1],
     [1, 1, 1, 1, 1, 1, 1, 1],
     [1, 1, 1, 1, 1, 1, 1, 1],
     [1, 1, 1, 1, 1, 1, 1, 1],
     [1, 1, 1, 1, 1, 4, 2, 3],
     [1, 3, 1, 3, 1, 6, 1, 1],
     [2, 1, 1, 1, 2, 1, 1, 1],
     [2, 1, 1, 1, 1, 1, 1, 1],
     [1, 2, 2, 2, 3, 2, 2, 2],
     [1, 1, 4, 3, 2, 2, 2, 0],
     [3, 3, 3, 4, 3, 3, 3, 2],
     [4, 3, 2, 2, 2, 3, 3, 3],
     [3, 4, 3, 3, 3, 2, 4, 3],
     [2, 2, 2, 3, 3, 3, 3, 4],
     [3, 3, 3, 2, 4, 3, 2, 2],
     [2, 3, 3, 3, 3, 4, 3, 3],
     [3, 2, 4, 3, 2, 2, 2, 3],
     [3, 3, 3, 4, 3, 3, 3, 2],
     [1, 4, 3, 2, 2, 2, 3, 3],
     [3, 3, 4, 3, 3, 3, 2, 0],
     [0, 13, 0, 0, 10, 0, 0, 11],
     [14, 14, 13, 7, 0, 0, 6, 0],
     [0, 4, 3, 2, 3, 0, 10, 2],
     [7, 2, 1, 1, 0, 6, 6, 6],
     [6, 6, 7, 7, 7, 6, 3, 3],
     [3, 3, 3, 10, 10, 10, 11, 10],
     [3, 3, 4, 3, 3, 3, 4, 3],
     [3, 3, 4, 3, 1, 1, 1, 1],
     [1, 1, 1, 1, 1, 1, 1, 1],
     [1, 1, 1, 1, 1, 1, 1, 1],
     [1, 1, 1, 1, 1, 1, 1, 1],
     [1, 1, 4, 2, 3, 1, 3, 1],
     [3, 1, 7, 1, 1, 2, 1, 1],
     [1, 2, 1, 1, 1, 2, 1, 1],
     [1, 1, 1, 1, 1, 1, 2, 2],
     [2, 3, 2, 2, 2, 1, 1, 4],
     [3, 2, 2, 2, 0, 3, 3, 3],
     [4, 3, 3, 3, 2, 4, 3, 2],
     [2, 2, 3, 3, 3, 3, 4, 3],
     [3, 3, 2, 4, 3, 2, 2, 2],
     [3, 3, 3, 3, 4, 3, 3, 3],
     [2, 4, 3, 2, 2, 2, 3, 3],
     [3, 3, 4, 3, 3, 3, 2, 4],
     [3, 2, 2, 2, 3, 3, 3, 3],
     [4, 3, 3, 3, 2, 1, 4, 3],
     [2, 2, 2, 3, 3, 3, 3, 4],
     [3, 3, 3, 2, 0, 0, 13, 0],
     [0, 11, 13, 13, 13, 9, 7, 0],
     [0, 6, 0, 0, 4, 3, 2, 3],
     [0, 9, 2, 6, 2, 1, 1, 0],
     [5, 5, 5, 5, 5, 6, 6, 6],
     [5, 3, 3, 3, 3, 3, 9, 9],
     [9, 10, 9, 3, 3, 4, 3, 3],
     [3, 4, 3, 3, 3, 4, 3, 1],
     [1, 1, 1, 1, 1, 1, 1, 1],
     [1, 1, 1, 1, 1, 1, 1, 1],
     [1, 1, 1, 1, 1, 1, 1, 1],
     [1, 1, 1, 1, 1, 4, 2, 3]]"

definition sup_single_lengths_3 :: "int list list" where
  "sup_single_lengths_3 =
    [[1, 3, 1, 3, 1, 6, 1, 1],
     [2, 1, 1, 1, 2, 1, 1, 1],
     [2, 1, 1, 1, 1, 1, 1, 1],
     [1, 2, 2, 2, 3, 2, 2, 2],
     [1, 1, 4, 3, 2, 2, 2, 0],
     [3, 3, 3, 4, 3, 3, 3, 2],
     [4, 3, 2, 2, 2, 3, 3, 3],
     [3, 4, 3, 3, 3, 2, 4, 3],
     [2, 2, 2, 3, 3, 3, 3, 4],
     [3, 3, 3, 2, 4, 3, 2, 2],
     [2, 3, 3, 3, 3, 4, 3, 3],
     [3, 2, 4, 3, 2, 2, 2, 3],
     [3, 3, 3, 4, 3, 3, 3, 2],
     [1, 4, 3, 2, 2, 2, 3, 3],
     [3, 3, 4, 3, 3, 3, 2, 10],
     [8, 10, 7, 15, 8, 12, 8, 7],
     [7, 7, 11, 11, 11, 11, 11, 12],
     [12, 12, 11, 10, 10, 10, 10, 10],
     [15, 15, 15, 16, 15, 10, 10, 11],
     [10, 10, 10, 11, 10, 10, 10, 11],
     [10, 11, 13, 13, 11, 3, 6, 2],
     [0, 5, 15, 38, 32, 24, 0, 0],
     [19, 0, 0, 12, 9, 6, 9, 0],
     [18, 6, 9, 6, 3, 3, 0, 6],
     [6, 6, 6, 6, 9, 9, 9, 6],
     [9, 9, 9, 9, 9, 18, 18, 18],
     [21, 18, 9, 9, 12, 9, 9, 9],
     [12, 9, 9, 9, 12, 9, 3, 3],
     [3, 3, 3, 3, 3, 3, 3, 3],
     [3, 3, 3, 3, 3, 3, 3, 3],
     [3, 3, 3, 3, 3, 3, 3, 3],
     [3, 3, 3, 3, 12, 6, 9, 3],
     [9, 3, 9, 3, 9, 3, 3, 6],
     [3, 3, 3, 6, 3, 3, 3, 6],
     [3, 3, 3, 3, 3, 3, 3, 3],
     [6, 6, 6, 9, 6, 6, 6, 3],
     [3, 12, 9, 6, 6, 6, 0, 9],
     [9, 9, 12, 9, 9, 9, 6, 12],
     [9, 6, 6, 6, 9, 9, 9, 9],
     [12, 9, 9, 9, 6, 12, 9, 6],
     [6, 6, 9, 9, 9, 9, 12, 9],
     [9, 9, 6, 12, 9, 6, 6, 6],
     [9, 9, 9, 9, 12, 9, 9, 9],
     [6, 12, 9, 6, 6, 6, 9, 9],
     [9, 9, 12, 9, 9, 9, 6, 3],
     [12, 9, 6, 6, 6, 9, 9, 9],
     [9, 12, 9, 9, 9, 6, 0, 0],
     [31, 0, 0, 23, 0, 0, 25, 31],
     [10, 10, 27, 29, 9, 9, 26, 30],
     [34, 10, 10, 32, 32, 9, 9, 35],
     [35, 32, 24, 0, 0, 19, 0, 0],
     [12, 9, 6, 9, 0, 21, 6, 12],
     [6, 3, 3, 0, 9, 9, 9, 9],
     [9, 12, 12, 12, 9, 9, 9, 9],
     [9, 9, 21, 21, 21, 24, 21, 9],
     [9, 12, 9, 9, 9, 12, 9, 9],
     [9, 12, 9, 3, 3, 3, 3, 3],
     [3, 3, 3, 3, 3, 3, 3, 3],
     [3, 3, 3, 3, 3, 3, 3, 3],
     [3, 3, 3, 3, 3, 3, 3, 3],
     [3, 12, 6, 9, 3, 9, 3, 9],
     [3, 12, 3, 3, 6, 3, 3, 3],
     [6, 3, 3, 3, 6, 3, 3, 3],
     [3, 3, 3, 3, 3, 6, 6, 6],
     [9, 6, 6, 6, 3, 3, 12, 9],
     [6, 6, 6, 0, 9, 9, 9, 12],
     [9, 9, 9, 6, 12, 9, 6, 6],
     [6, 9, 9, 9, 9, 12, 9, 9],
     [9, 6, 12, 9, 6, 6, 6, 9],
     [9, 9, 9, 12, 9, 9, 9, 6],
     [12, 9, 6, 6, 6, 9, 9, 9],
     [9, 12, 9, 9, 9, 6, 12, 9],
     [6, 6, 6, 9, 9, 9, 9, 12],
     [9, 9, 9, 6, 3, 12, 9, 6],
     [6, 6, 9, 9, 9, 9, 12, 9],
     [9, 9, 6, 0, 0, 31, 0, 0],
     [26, 30, 34, 10, 10, 32, 32, 9],
     [9, 21, 21, 21, 30, 24, 0, 0],
     [19, 0, 0, 12, 9, 6, 9, 0],
     [20, 6, 11, 6, 3, 3, 0, 8],
     [37, 33, 10, 10, 31, 30, 9, 9],
     [10, 10, 10, 10, 11, 10, 10, 10],
     [10, 11, 10, 10, 10, 10, 11, 10],
     [10, 10, 10, 11, 10, 10, 10, 10],
     [11, 10, 10, 10, 10, 11, 16, 15],
     [15, 12, 15, 12, 15, 10, 13, 11],
     [11, 13, 10, 14, 14, 16, 13, 14],
     [14, 16, 13, 10, 10, 11, 10, 11],
     [11, 11, 15, 15, 15, 17, 15, 15],
     [15, 11, 10, 17, 17, 12, 12, 13],
     [9, 17, 17, 17, 19, 17, 17, 17],
     [12, 17, 17, 12, 12, 13, 15, 17],
     [17, 17, 19, 17, 17, 17, 12, 17],
     [17, 12, 12, 13, 15, 17, 17, 17],
     [19, 17, 17, 17, 12, 17, 17, 12],
     [12, 13, 15, 17, 17, 17, 19, 17],
     [17, 17, 12, 17, 17, 12, 12, 13],
     [15, 17, 17, 17, 19, 17, 17, 17],
     [12, 11, 17, 17, 12, 12, 13, 15],
     [17, 17, 17, 19, 17, 17, 17, 12],
     [37, 33, 30, 28, 20, 20, 20, 41],
     [33, 37, 37, 33, 30, 28, 20, 20],
     [20, 37, 37, 37, 37, 37, 37, 37],
     [37, 33, 46, 28, 20, 20, 20, 32],
     [32, 32, 28, 36, 32, 28, 32, 28],
     [32, 32, 28, 32, 32, 28, 8, 8],
     [8, 8, 11, 11, 11, 8, 9, 9],
     [9, 9, 9, 20, 20, 20, 23, 20],
     [9, 9, 12, 9, 9, 9, 12, 9],
     [9, 9, 12, 9, 3, 3, 3, 3],
     [3, 3, 3, 3, 3, 3, 3, 3],
     [3, 3, 3, 3, 3, 3, 3, 3],
     [3, 3, 3, 3, 3, 3, 3, 3],
     [3, 3, 12, 6, 9, 3, 9, 3],
     [9, 3, 11, 3, 3, 6, 3, 3],
     [3, 6, 3, 3, 3, 6, 3, 3],
     [3, 3, 3, 3, 3, 3, 6, 6],
     [6, 9, 6, 6, 6, 3, 3, 12],
     [9, 6, 6, 6, 0, 9, 9, 9],
     [12, 9, 9, 9, 6, 12, 9, 6],
     [6, 6, 9, 9, 9, 9, 12, 9],
     [9, 9, 6, 12, 9, 6, 6, 6],
     [9, 9, 9, 9, 12, 9, 9, 9],
     [6, 12, 9, 6, 6, 6, 9, 9],
     [9, 9, 12, 9, 9, 9, 6, 12],
     [9, 6, 6, 6, 9, 9, 9, 9],
     [12, 9, 9, 9, 6, 3, 12, 9],
     [6, 6, 6, 9, 9, 9, 9, 12],
     [9, 9, 9, 6, 33, 27, 33, 24],
     [39, 27, 30, 25, 22, 22, 22, 27],
     [27, 27, 27, 27, 30, 30, 30, 27],
     [43, 36, 10, 10, 35, 34, 9, 9],
     [40, 36, 33, 32, 20, 20, 44, 36],
     [40, 40, 36, 33, 32, 20, 20, 40],
     [40, 40, 40, 40, 40, 40, 40, 36],
     [49, 32, 20, 20, 36, 36, 36, 32],
     [40, 36, 32, 36, 32, 36, 36, 32],
     [36, 36, 32, 33, 33, 33, 33, 33],
     [39, 39, 39, 42, 39, 33, 33, 36],
     [33, 33, 33, 36, 33, 33, 33, 36],
     [33, 15, 21, 21, 15, 9, 10, 15],
     [18, 27, 29, 9, 9, 9, 9, 9],
     [9, 10, 9, 9, 9, 9, 10, 9],
     [9, 9, 9, 10, 9, 9, 9, 9],
     [10, 9, 9, 9, 9, 10, 9, 9],
     [9, 9, 10, 15, 14, 14, 11, 14],
     [11, 14, 9, 12, 10, 10, 12, 9],
     [13, 13, 15, 12, 13, 13, 15, 12],
     [9, 9, 10, 9, 10, 10, 10, 14],
     [14, 14, 16, 14, 14, 14, 10, 9]]"

definition sup_single_lengths_4 :: "int list list" where
  "sup_single_lengths_4 =
    [[16, 16, 11, 11, 12, 8, 16, 16],
     [16, 18, 16, 16, 16, 11, 16, 16],
     [11, 11, 12, 14, 16, 16, 16, 18],
     [16, 16, 16, 11, 16, 16, 11, 11],
     [12, 14, 16, 16, 16, 18, 16, 16],
     [16, 11, 16, 16, 11, 11, 12, 14],
     [16, 16, 16, 18, 16, 16, 16, 11],
     [16, 16, 11, 11, 12, 14, 16, 16],
     [16, 18, 16, 16, 16, 11, 10, 16],
     [16, 11, 11, 12, 14, 16, 16, 16],
     [18, 16, 16, 16, 11, 22, 22, 22],
     [22, 18, 22, 22, 22, 22, 22, 22],
     [22, 18, 32, 29, 29, 33, 33, 29],
     [33, 33, 29, 6, 0, 7, 0]]"

definition sup_range_lengths_1 :: "int list list" where
  "sup_range_lengths_1 =
    [[0, 10, 0, 0, 0, 0, 2, 4],
     [3, 3, 3, 3, 3, 4, 3, 3],
     [3, 3, 3, 3, 3, 3, 3, 3],
     [2, 1, 1, 1, 0, 0, 0, 0],
     [0, 0, 0, 0, 5, 0, 0, 5],
     [5, 0, 0, 0, 0, 5, 0, 0],
     [5, 5, 0, 6, 1, 1, 1, 1],
     [1, 0, 0, 0, 3, 3, 3, 3],
     [3, 0, 3, 3, 3, 3, 0, 3],
     [3, 3, 3, 0, 3, 3, 3, 3],
     [0, 3, 3, 3, 3, 0, 3, 3],
     [3, 3, 0, 3, 3, 1, 0, 1],
     [0, 1, 0, 1, 1, 2, 1, 1],
     [1, 2, 1, 1, 1, 2, 1, 3],
     [3, 0, 3, 3, 3, 3, 3, 3],
     [3, 4, 4, 3, 3, 3, 3, 3],
     [3, 3, 3, 0, 3, 3, 3, 3],
     [4, 4, 3, 3, 3, 3, 3, 3],
     [3, 0, 3, 3, 3, 3, 4, 4],
     [3, 3, 3, 3, 3, 3, 3, 0],
     [3, 3, 3, 3, 4, 4, 3, 3],
     [3, 3, 3, 3, 3, 0, 3, 3],
     [3, 3, 4, 4, 3, 3, 3, 3],
     [3, 3, 3, 0, 3, 3, 3, 3],
     [4, 4, 3, 3, 3, 0, 3, 3],
     [3, 3, 0, 3, 3, 3, 3, 4],
     [4, 3, 3, 3, 3, 3, 3, 1],
     [1, 1, 1, 2, 2, 2, 1, 3],
     [3, 3, 3, 3, 3, 3, 3, 4],
     [4, 3, 3, 4, 4, 3, 3, 4],
     [4, 3, 3, 4, 4, 3, 3, 3],
     [3, 0, 3, 3, 3, 3, 0, 3],
     [3, 3, 3, 0, 3, 3, 3, 3],
     [0, 3, 3, 3, 3, 0, 3, 3],
     [3, 3, 0, 3, 3, 1, 0, 1],
     [0, 1, 0, 0, 1, 1, 2, 1],
     [1, 1, 2, 1, 1, 1, 2, 1],
     [3, 3, 0, 3, 3, 3, 3, 3],
     [3, 3, 4, 4, 3, 3, 3, 3],
     [3, 3, 3, 3, 0, 3, 3, 3],
     [3, 4, 4, 3, 3, 3, 3, 3],
     [3, 3, 0, 3, 3, 3, 3, 4],
     [4, 3, 3, 3, 3, 3, 3, 3],
     [0, 3, 3, 3, 3, 4, 4, 3],
     [3, 3, 3, 3, 3, 3, 0, 3],
     [3, 3, 3, 4, 4, 3, 3, 3],
     [3, 3, 3, 3, 0, 3, 3, 3],
     [3, 4, 4, 3, 3, 3, 0, 3],
     [3, 3, 3, 0, 3, 3, 3, 3],
     [4, 4, 3, 3, 3, 3, 3, 4],
     [3, 3, 3, 3, 3, 3, 3, 3],
     [3, 4, 3, 3, 3, 3, 3, 3],
     [3, 3, 3, 3, 2, 1, 1, 1],
     [0, 1, 1, 1, 1, 2, 2, 2],
     [1, 3, 3, 3, 3, 3, 3, 3],
     [3, 4, 4, 3, 3, 4, 4, 3],
     [3, 4, 4, 3, 3, 4, 4, 3],
     [3, 3, 3, 0, 3, 3, 3, 3],
     [0, 3, 3, 3, 3, 0, 3, 3],
     [3, 3, 0, 3, 3, 3, 3, 0],
     [3, 3, 3, 3, 0, 3, 3, 1],
     [0, 1, 0, 1, 0, 0, 1, 1],
     [2, 1, 1, 1, 2, 1, 1, 1],
     [2, 1, 3, 3, 0, 3, 3, 3],
     [3, 3, 3, 3, 4, 4, 3, 3],
     [3, 3, 3, 3, 3, 3, 0, 3],
     [3, 3, 3, 4, 4, 3, 3, 3],
     [3, 3, 3, 3, 0, 3, 3, 3],
     [3, 4, 4, 3, 3, 3, 3, 3],
     [3, 3, 0, 3, 3, 3, 3, 4],
     [4, 3, 3, 3, 3, 3, 3, 3],
     [0, 3, 3, 3, 3, 4, 4, 3],
     [3, 3, 3, 3, 3, 3, 0, 3],
     [3, 3, 3, 4, 4, 3, 3, 3],
     [0, 3, 3, 3, 3, 0, 3, 3],
     [3, 3, 4, 4, 3, 3, 3, 3],
     [3, 4, 3, 3, 3, 4, 4, 4],
     [4, 3, 3, 3, 4, 3, 3, 3],
     [3, 3, 3, 3, 3, 3, 3, 2],
     [1, 1, 1, 0, 4, 4, 3, 3],
     [4, 4, 3, 3, 4, 4, 3, 3],
     [4, 3, 3, 4, 4, 4, 5, 5],
     [8, 5, 8, 4, 4, 4, 4, 4],
     [5, 5, 8, 5, 8, 4, 4, 4],
     [4, 4, 4, 4, 4, 4, 5, 5],
     [8, 5, 8, 5, 5, 5, 5, 5],
     [5, 5, 5, 5, 5, 5, 5, 5],
     [5, 5, 1, 1, 1, 1, 2, 2],
     [2, 1, 3, 3, 3, 3, 3, 3],
     [3, 3, 4, 4, 3, 3, 4, 4],
     [3, 3, 4, 4, 3, 3, 4, 4],
     [3, 3, 3, 3, 0, 3, 3, 3],
     [3, 0, 3, 3, 3, 3, 0, 3],
     [3, 3, 3, 0, 3, 3, 3, 3],
     [0, 3, 3, 3, 3, 0, 3, 3],
     [1, 0, 1, 0, 1, 0, 0, 1],
     [1, 2, 1, 1, 1, 2, 1, 1],
     [1, 2, 1, 3, 3, 0, 3, 3],
     [3, 3, 3, 3, 3, 4, 4, 3],
     [3, 3, 3, 3, 3, 3, 3, 0],
     [3, 3, 3, 3, 4, 4, 3, 3],
     [3, 3, 3, 3, 3, 0, 3, 3],
     [3, 3, 4, 4, 3, 3, 3, 3],
     [3, 3, 3, 0, 3, 3, 3, 3],
     [4, 4, 3, 3, 3, 3, 3, 3],
     [3, 0, 3, 3, 3, 3, 4, 4],
     [3, 3, 3, 3, 3, 3, 3, 0],
     [3, 3, 3, 3, 4, 4, 3, 3],
     [3, 0, 3, 3, 3, 3, 0, 3],
     [3, 3, 3, 4, 4, 3, 3, 3],
     [4, 4, 4, 4, 4, 4, 4, 5],
     [4, 4, 4, 4, 4, 4, 4, 4],
     [5, 5, 5, 5, 3, 3, 3, 3],
     [3, 3, 3, 3, 3, 3, 3, 3],
     [3, 3, 3, 3, 4, 4, 3, 3],
     [3, 3, 3, 3, 3, 3, 3, 3],
     [3, 3, 3, 3, 3, 4, 4, 8],
     [8, 3, 3, 3, 3, 3, 4, 4],
     [8, 8, 3, 3, 3, 3, 3, 3],
     [3, 3, 3, 4, 4, 8, 8, 4],
     [4, 4, 4, 4, 4, 4, 4, 4],
     [4, 4, 4, 4, 4, 4, 4, 4],
     [4, 4, 4, 4, 4, 4, 5, 5],
     [4, 4, 5, 5, 4, 4, 5, 5],
     [4, 4, 5, 5, 4, 4, 4, 4],
     [5, 5, 3, 3, 4, 4, 3, 3],
     [3, 3, 3, 3, 3, 3, 3, 3],
     [3, 3, 3, 3, 3, 5, 7, 6],
     [4, 5, 5, 4, 5, 5, 5, 3],
     [3, 5, 5, 0, 0, 5, 6, 1],
     [1, 1, 1, 1, 0, 0, 0, 3],
     [4, 3, 3, 3, 3, 3, 4, 3],
     [3, 3, 3, 3, 3, 3, 3, 3],
     [3, 2, 1, 1, 1, 0, 3, 3],
     [3, 1, 1, 1, 1, 2, 2, 2],
     [1, 3, 3, 3, 3, 3, 3, 3],
     [3, 4, 4, 3, 3, 4, 4, 3],
     [3, 4, 4, 3, 3, 4, 4, 3],
     [3, 3, 3, 0, 3, 3, 3, 3],
     [0, 3, 3, 3, 3, 0, 3, 3],
     [3, 3, 0, 3, 3, 3, 3, 0],
     [3, 3, 3, 3, 0, 3, 3, 1],
     [0, 1, 0, 1, 0, 0, 1, 1],
     [2, 1, 1, 1, 2, 1, 1, 1],
     [2, 1, 3, 3, 0, 3, 3, 3],
     [3, 3, 3, 3, 4, 4, 3, 3],
     [3, 3, 3, 3, 3, 3, 0, 3],
     [3, 3, 3, 4, 4, 3, 3, 3],
     [3, 3, 3, 3, 0, 3, 3, 3],
     [3, 4, 4, 3, 3, 3, 3, 3]]"

definition sup_range_lengths_2 :: "int list list" where
  "sup_range_lengths_2 =
    [[3, 3, 0, 3, 3, 3, 3, 4],
     [4, 3, 3, 3, 3, 3, 3, 3],
     [0, 3, 3, 3, 3, 4, 4, 3],
     [3, 3, 3, 3, 3, 3, 0, 3],
     [3, 3, 3, 4, 4, 3, 3, 3],
     [0, 3, 3, 3, 3, 0, 3, 3],
     [3, 3, 4, 4, 3, 3, 3, 3],
     [3, 4, 3, 3, 3, 3, 3, 3],
     [3, 3, 3, 4, 3, 3, 3, 3],
     [3, 3, 3, 3, 3, 3, 2, 1],
     [1, 1, 0, 1, 1, 1, 1, 2],
     [2, 2, 1, 3, 3, 3, 3, 3],
     [3, 3, 3, 4, 4, 3, 3, 4],
     [4, 3, 3, 4, 4, 3, 3, 4],
     [4, 3, 3, 3, 3, 0, 3, 3],
     [3, 3, 0, 3, 3, 3, 3, 0],
     [3, 3, 3, 3, 0, 3, 3, 3],
     [3, 0, 3, 3, 3, 3, 0, 3],
     [3, 1, 0, 1, 0, 1, 0, 0],
     [1, 1, 2, 1, 1, 1, 2, 1],
     [1, 1, 2, 1, 3, 3, 0, 3],
     [3, 3, 3, 3, 3, 3, 4, 4],
     [3, 3, 3, 3, 3, 3, 3, 3],
     [0, 3, 3, 3, 3, 4, 4, 3],
     [3, 3, 3, 3, 3, 3, 0, 3],
     [3, 3, 3, 4, 4, 3, 3, 3],
     [3, 3, 3, 3, 0, 3, 3, 3],
     [3, 4, 4, 3, 3, 3, 3, 3],
     [3, 3, 0, 3, 3, 3, 3, 4],
     [4, 3, 3, 3, 3, 3, 3, 3],
     [0, 3, 3, 3, 3, 4, 4, 3],
     [3, 3, 0, 3, 3, 3, 3, 0],
     [3, 3, 3, 3, 4, 4, 3, 3],
     [3, 3, 3, 4, 3, 3, 3, 4],
     [4, 4, 4, 3, 3, 3, 4, 3],
     [3, 3, 3, 3, 3, 3, 3, 3],
     [3, 2, 1, 1, 1, 0, 4, 4],
     [3, 3, 4, 4, 3, 3, 4, 4],
     [3, 3, 4, 3, 3, 4, 4, 4],
     [5, 5, 8, 5, 8, 4, 4, 4],
     [4, 4, 5, 5, 8, 5, 8, 4],
     [4, 4, 4, 4, 4, 4, 4, 4],
     [5, 5, 8, 5, 8, 5, 5, 5],
     [5, 5, 5, 5, 5, 5, 5, 5],
     [5, 5, 5, 5, 1, 1, 1, 1],
     [2, 2, 2, 1, 3, 3, 3, 3],
     [3, 3, 3, 3, 4, 4, 3, 3],
     [4, 4, 3, 3, 4, 4, 3, 3],
     [4, 4, 3, 3, 3, 3, 0, 3],
     [3, 3, 3, 0, 3, 3, 3, 3],
     [0, 3, 3, 3, 3, 0, 3, 3],
     [3, 3, 0, 3, 3, 3, 3, 0],
     [3, 3, 1, 0, 1, 0, 1, 0],
     [0, 1, 1, 2, 1, 1, 1, 2],
     [1, 1, 1, 2, 1, 3, 3, 0],
     [3, 3, 3, 3, 3, 3, 3, 4],
     [4, 3, 3, 3, 3, 3, 3, 3],
     [3, 0, 3, 3, 3, 3, 4, 4],
     [3, 3, 3, 3, 3, 3, 3, 0],
     [3, 3, 3, 3, 4, 4, 3, 3],
     [3, 3, 3, 3, 3, 0, 3, 3],
     [3, 3, 4, 4, 3, 3, 3, 3],
     [3, 3, 3, 0, 3, 3, 3, 3],
     [4, 4, 3, 3, 3, 3, 3, 3],
     [3, 0, 3, 3, 3, 3, 4, 4],
     [3, 3, 3, 0, 3, 3, 3, 3],
     [0, 3, 3, 3, 3, 4, 4, 3],
     [3, 3, 4, 4, 4, 4, 4, 4],
     [4, 5, 4, 4, 4, 4, 4, 4],
     [4, 4, 5, 5, 5, 5, 3, 3],
     [3, 3, 3, 3, 3, 3, 3, 3],
     [3, 3, 3, 3, 3, 3, 4, 4],
     [3, 3, 3, 3, 3, 3, 3, 3],
     [3, 3, 3, 3, 3, 3, 3, 4],
     [4, 8, 8, 3, 3, 3, 3, 3],
     [4, 4, 8, 8, 3, 3, 3, 3],
     [3, 3, 3, 3, 3, 4, 4, 8],
     [8, 4, 4, 4, 4, 4, 4, 4],
     [4, 4, 4, 4, 4, 4, 4, 4],
     [4, 4, 4, 4, 4, 4, 4, 4],
     [5, 5, 4, 4, 5, 5, 4, 4],
     [5, 5, 4, 4, 5, 5, 4, 4],
     [4, 4, 5, 5, 3, 3, 4, 4],
     [3, 3, 3, 3, 3, 3, 3, 3],
     [3, 3, 3, 3, 3, 3, 3, 5],
     [7, 6, 4, 5, 5, 4, 5, 5],
     [5, 3, 3, 5, 4, 4, 4, 3],
     [3, 5, 3, 3, 3, 3, 3, 3],
     [3, 3, 3, 3, 2, 1, 1, 1],
     [0, 1, 1, 1, 1, 2, 2, 2],
     [1, 3, 3, 3, 3, 3, 3, 3],
     [3, 4, 4, 3, 3, 4, 4, 3],
     [3, 4, 4, 3, 3, 4, 4, 3],
     [3, 3, 3, 0, 3, 3, 3, 3],
     [0, 3, 3, 3, 3, 0, 3, 3],
     [3, 3, 0, 3, 3, 3, 3, 0],
     [3, 3, 3, 3, 0, 3, 3, 1],
     [0, 1, 0, 1, 0, 0, 1, 1],
     [2, 1, 1, 1, 2, 1, 1, 1],
     [2, 1, 3, 3, 0, 3, 3, 3],
     [3, 3, 3, 3, 4, 4, 3, 3],
     [3, 3, 3, 3, 3, 3, 0, 3],
     [3, 3, 3, 4, 4, 3, 3, 3],
     [3, 3, 3, 3, 0, 3, 3, 3],
     [3, 4, 4, 3, 3, 3, 3, 3],
     [3, 3, 0, 3, 3, 3, 3, 4],
     [4, 3, 3, 3, 3, 3, 3, 3],
     [0, 3, 3, 3, 3, 4, 4, 3],
     [3, 3, 3, 3, 3, 3, 0, 3],
     [3, 3, 3, 4, 4, 3, 3, 3],
     [0, 3, 3, 3, 3, 0, 3, 3],
     [3, 3, 4, 4, 3, 3, 3, 3],
     [3, 4, 3, 3, 4, 3, 3, 4],
     [4, 4, 4, 4, 3, 3, 5, 3],
     [3, 3, 3, 3, 3, 3, 3, 3],
     [3, 2, 1, 1, 1, 0, 1, 1],
     [1, 1, 2, 2, 2, 1, 3, 3],
     [3, 3, 3, 3, 3, 3, 4, 4],
     [3, 3, 4, 4, 3, 3, 4, 4],
     [3, 3, 4, 4, 3, 3, 3, 3],
     [0, 3, 3, 3, 3, 0, 3, 3],
     [3, 3, 0, 3, 3, 3, 3, 0],
     [3, 3, 3, 3, 0, 3, 3, 3],
     [3, 0, 3, 3, 1, 0, 1, 0],
     [1, 0, 0, 1, 1, 2, 1, 1],
     [1, 2, 1, 1, 1, 2, 1, 3],
     [3, 0, 3, 3, 3, 3, 3, 3],
     [3, 4, 4, 3, 3, 3, 3, 3],
     [3, 3, 3, 0, 3, 3, 3, 3],
     [4, 4, 3, 3, 3, 3, 3, 3],
     [3, 0, 3, 3, 3, 3, 4, 4],
     [3, 3, 3, 3, 3, 3, 3, 0],
     [3, 3, 3, 3, 4, 4, 3, 3],
     [3, 3, 3, 3, 3, 0, 3, 3],
     [3, 3, 4, 4, 3, 3, 3, 3],
     [3, 3, 3, 0, 3, 3, 3, 3],
     [4, 4, 3, 3, 3, 0, 3, 3],
     [3, 3, 0, 3, 3, 3, 3, 4],
     [4, 3, 3, 3, 3, 3, 4, 3],
     [3, 4, 5, 5, 5, 5, 4, 3],
     [3, 5, 3, 3, 3, 3, 3, 3],
     [3, 3, 3, 3, 2, 1, 1, 1],
     [0, 1, 1, 1, 1, 2, 2, 2],
     [1, 3, 3, 3, 3, 3, 3, 3],
     [3, 4, 4, 3, 3, 4, 4, 3],
     [3, 4, 4, 3, 3, 4, 4, 3],
     [3, 3, 3, 0, 3, 3, 3, 3],
     [0, 3, 3, 3, 3, 0, 3, 3],
     [3, 3, 0, 3, 3, 3, 3, 0],
     [3, 3, 3, 3, 0, 3, 3, 1]]"

definition sup_range_lengths_3 :: "int list list" where
  "sup_range_lengths_3 =
    [[0, 1, 0, 1, 0, 0, 1, 1],
     [2, 1, 1, 1, 2, 1, 1, 1],
     [2, 1, 3, 3, 0, 3, 3, 3],
     [3, 3, 3, 3, 4, 4, 3, 3],
     [3, 3, 3, 3, 3, 3, 0, 3],
     [3, 3, 3, 4, 4, 3, 3, 3],
     [3, 3, 3, 3, 0, 3, 3, 3],
     [3, 4, 4, 3, 3, 3, 3, 3],
     [3, 3, 0, 3, 3, 3, 3, 4],
     [4, 3, 3, 3, 3, 3, 3, 3],
     [0, 3, 3, 3, 3, 4, 4, 3],
     [3, 3, 3, 3, 3, 3, 0, 3],
     [3, 3, 3, 4, 4, 3, 3, 3],
     [0, 3, 3, 3, 3, 0, 3, 3],
     [3, 3, 4, 4, 3, 3, 3, 4],
     [5, 4, 5, 4, 5, 5, 6, 5],
     [5, 5, 5, 5, 5, 5, 5, 6],
     [6, 6, 6, 5, 4, 5, 4, 5],
     [4, 4, 4, 5, 5, 4, 4, 5],
     [5, 4, 4, 5, 5, 4, 4, 5],
     [5, 5, 5, 5, 5, 5, 5, 5],
     [3, 3, 13, 12, 12, 12, 9, 9],
     [15, 9, 9, 9, 9, 9, 9, 9],
     [9, 9, 9, 6, 3, 3, 3, 0],
     [3, 3, 3, 3, 6, 6, 6, 3],
     [9, 9, 9, 9, 9, 9, 9, 9],
     [12, 12, 9, 9, 12, 12, 9, 9],
     [12, 12, 9, 9, 12, 12, 9, 9],
     [9, 9, 0, 9, 9, 9, 9, 0],
     [9, 9, 9, 9, 0, 9, 9, 9],
     [9, 0, 9, 9, 9, 9, 0, 9],
     [9, 9, 9, 0, 9, 9, 3, 0],
     [3, 0, 3, 0, 0, 3, 3, 6],
     [3, 3, 3, 6, 3, 3, 3, 6],
     [3, 9, 9, 0, 9, 9, 9, 9],
     [9, 9, 9, 12, 12, 9, 9, 9],
     [9, 9, 9, 9, 9, 0, 9, 9],
     [9, 9, 12, 12, 9, 9, 9, 9],
     [9, 9, 9, 0, 9, 9, 9, 9],
     [12, 12, 9, 9, 9, 9, 9, 9],
     [9, 0, 9, 9, 9, 9, 12, 12],
     [9, 9, 9, 9, 9, 9, 9, 0],
     [9, 9, 9, 9, 12, 12, 9, 9],
     [9, 9, 9, 9, 9, 0, 9, 9],
     [9, 9, 12, 12, 9, 9, 9, 0],
     [9, 9, 9, 9, 0, 9, 9, 9],
     [9, 12, 12, 9, 9, 9, 9, 9],
     [13, 9, 9, 12, 9, 9, 18, 17],
     [14, 14, 18, 17, 14, 14, 12, 16],
     [16, 14, 14, 16, 16, 14, 14, 12],
     [12, 12, 12, 9, 9, 15, 9, 9],
     [9, 9, 9, 9, 9, 9, 9, 9],
     [6, 3, 3, 3, 0, 3, 3, 3],
     [3, 6, 6, 6, 3, 9, 9, 9],
     [9, 9, 9, 9, 9, 12, 12, 9],
     [9, 12, 12, 9, 9, 12, 12, 9],
     [9, 12, 12, 9, 9, 9, 9, 0],
     [9, 9, 9, 9, 0, 9, 9, 9],
     [9, 0, 9, 9, 9, 9, 0, 9],
     [9, 9, 9, 0, 9, 9, 9, 9],
     [0, 9, 9, 3, 0, 3, 0, 3],
     [0, 0, 3, 3, 6, 3, 3, 3],
     [6, 3, 3, 3, 6, 3, 9, 9],
     [0, 9, 9, 9, 9, 9, 9, 9],
     [12, 12, 9, 9, 9, 9, 9, 9],
     [9, 9, 0, 9, 9, 9, 9, 12],
     [12, 9, 9, 9, 9, 9, 9, 9],
     [0, 9, 9, 9, 9, 12, 12, 9],
     [9, 9, 9, 9, 9, 9, 0, 9],
     [9, 9, 9, 12, 12, 9, 9, 9],
     [9, 9, 9, 9, 0, 9, 9, 9],
     [9, 12, 12, 9, 9, 9, 9, 9],
     [9, 9, 0, 9, 9, 9, 9, 12],
     [12, 9, 9, 9, 0, 9, 9, 9],
     [9, 0, 9, 9, 9, 9, 12, 12],
     [9, 9, 9, 9, 9, 13, 9, 9],
     [12, 16, 16, 14, 14, 16, 16, 14],
     [14, 13, 13, 13, 15, 12, 9, 9],
     [15, 9, 9, 9, 9, 9, 9, 9],
     [9, 9, 9, 6, 3, 3, 3, 0],
     [16, 16, 14, 14, 16, 16, 14, 14],
     [13, 13, 13, 13, 4, 13, 13, 13],
     [13, 4, 13, 13, 13, 13, 4, 13],
     [13, 13, 13, 4, 13, 13, 13, 13],
     [4, 13, 13, 13, 13, 4, 13, 12],
     [7, 4, 7, 4, 7, 4, 4, 7],
     [7, 9, 8, 6, 6, 8, 7, 6],
     [6, 8, 7, 13, 13, 4, 13, 13],
     [13, 13, 12, 12, 12, 14, 14, 12],
     [12, 13, 13, 13, 12, 13, 13, 4],
     [13, 12, 12, 12, 14, 14, 12, 12],
     [13, 13, 12, 13, 13, 4, 13, 12],
     [12, 12, 14, 14, 12, 12, 13, 13],
     [12, 13, 13, 4, 13, 12, 12, 12],
     [14, 14, 12, 12, 13, 13, 12, 13],
     [13, 4, 13, 12, 12, 12, 14, 14],
     [12, 12, 13, 13, 12, 13, 13, 4],
     [13, 12, 12, 12, 14, 14, 12, 12],
     [13, 4, 13, 12, 13, 13, 4, 13],
     [12, 12, 12, 14, 14, 12, 12, 13],
     [16, 16, 16, 16, 21, 15, 21, 16],
     [16, 16, 16, 16, 16, 16, 21, 15],
     [21, 16, 16, 16, 16, 16, 16, 16],
     [16, 16, 16, 16, 21, 15, 21, 16],
     [16, 16, 16, 16, 16, 16, 16, 16],
     [16, 16, 16, 16, 16, 16, 3, 3],
     [3, 3, 6, 6, 6, 3, 9, 9],
     [9, 9, 9, 9, 9, 9, 12, 12],
     [9, 9, 12, 12, 9, 9, 12, 12],
     [9, 9, 12, 12, 9, 9, 9, 9],
     [0, 9, 9, 9, 9, 0, 9, 9],
     [9, 9, 0, 9, 9, 9, 9, 0],
     [9, 9, 9, 9, 0, 9, 9, 9],
     [9, 0, 9, 9, 3, 0, 3, 0],
     [3, 0, 0, 3, 3, 6, 3, 3],
     [3, 6, 3, 3, 3, 6, 3, 9],
     [9, 0, 9, 9, 9, 9, 9, 9],
     [9, 12, 12, 9, 9, 9, 9, 9],
     [9, 9, 9, 0, 9, 9, 9, 9],
     [12, 12, 9, 9, 9, 9, 9, 9],
     [9, 0, 9, 9, 9, 9, 12, 12],
     [9, 9, 9, 9, 9, 9, 9, 0],
     [9, 9, 9, 9, 12, 12, 9, 9],
     [9, 9, 9, 9, 9, 0, 9, 9],
     [9, 9, 12, 12, 9, 9, 9, 9],
     [9, 9, 9, 0, 9, 9, 9, 9],
     [12, 12, 9, 9, 9, 0, 9, 9],
     [9, 9, 0, 9, 9, 9, 9, 12],
     [12, 9, 9, 9, 12, 15, 12, 15],
     [12, 15, 15, 18, 15, 15, 15, 15],
     [15, 15, 15, 15, 18, 18, 18, 18],
     [16, 16, 14, 14, 16, 16, 14, 14],
     [16, 16, 16, 16, 21, 21, 16, 16],
     [16, 16, 16, 16, 16, 21, 21, 16],
     [16, 16, 16, 16, 16, 16, 16, 16],
     [16, 16, 21, 21, 16, 16, 16, 16],
     [16, 16, 16, 16, 16, 16, 16, 16],
     [16, 16, 16, 15, 12, 15, 12, 15],
     [12, 12, 12, 15, 15, 12, 12, 15],
     [15, 12, 12, 15, 15, 12, 12, 15],
     [15, 13, 13, 13, 13, 15, 15, 11],
     [11, 16, 16, 14, 14, 13, 13, 13],
     [13, 4, 13, 13, 13, 13, 4, 13],
     [13, 13, 13, 4, 13, 13, 13, 13],
     [4, 13, 13, 13, 13, 4, 13, 13],
     [13, 13, 4, 13, 12, 7, 4, 7],
     [4, 7, 4, 4, 7, 7, 9, 8],
     [6, 6, 8, 7, 6, 6, 8, 7],
     [13, 13, 4, 13, 13, 13, 13, 12],
     [12, 12, 14, 14, 12, 12, 13, 13]]"

definition sup_range_lengths_4 :: "int list list" where
  "sup_range_lengths_4 =
    [[13, 12, 13, 13, 4, 13, 12, 12],
     [12, 14, 14, 12, 12, 13, 13, 12],
     [13, 13, 4, 13, 12, 12, 12, 14],
     [14, 12, 12, 13, 13, 12, 13, 13],
     [4, 13, 12, 12, 12, 14, 14, 12],
     [12, 13, 13, 12, 13, 13, 4, 13],
     [12, 12, 12, 14, 14, 12, 12, 13],
     [13, 12, 13, 13, 4, 13, 12, 12],
     [12, 14, 14, 12, 12, 13, 4, 13],
     [12, 13, 13, 4, 13, 12, 12, 12],
     [14, 14, 12, 12, 13, 11, 11, 11],
     [11, 11, 11, 11, 11, 11, 11, 11],
     [11, 11, 14, 16, 16, 14, 14, 16],
     [14, 14, 16, 15, 9, 9, 0]]"

definition sup_index_offsets_1 :: "int list list" where
  "sup_index_offsets_1 =
    [[0, 0, 32, 37, 39, 42, 46, 53],
     [60, 74, 86, 97, 101, 105, 116, 120],
     [124, 132, 139, 145, 152, 156, 166, 172],
     [179, 184, 187, 190, 192, 195, 201, 203],
     [206, 212, 214, 217, 221, 234, 236, 239],
     [251, 267, 273, 275, 278, 283, 298, 300],
     [303, 317, 332, 337, 348, 350, 352, 354],
     [356, 358, 360, 363, 369, 373, 378, 383],
     [388, 393, 395, 400, 405, 410, 415, 417],
     [422, 427, 432, 437, 439, 444, 449, 454],
     [459, 461, 466, 471, 476, 481, 483, 488],
     [493, 498, 503, 505, 513, 519, 524, 526],
     [531, 533, 538, 540, 543, 546, 551, 554],
     [557, 560, 565, 568, 571, 574, 579, 582],
     [587, 592, 594, 599, 604, 609, 614, 620],
     [626, 632, 640, 647, 653, 659, 664, 669],
     [677, 684, 690, 696, 699, 703, 710, 717],
     [724, 733, 741, 748, 755, 761, 769, 776],
     [782, 788, 791, 798, 805, 812, 819, 828],
     [836, 843, 850, 856, 864, 871, 877, 883],
     [886, 893, 900, 907, 914, 923, 931, 938],
     [945, 951, 959, 966, 972, 978, 981, 988],
     [995, 1002, 1009, 1018, 1026, 1033, 1040, 1046],
     [1054, 1061, 1067, 1073, 1076, 1083, 1090, 1097],
     [1104, 1113, 1121, 1128, 1135, 1141, 1143, 1151],
     [1158, 1164, 1170, 1173, 1180, 1187, 1194, 1201],
     [1210, 1218, 1225, 1232, 1238, 1247, 1251, 1255],
     [1259, 1263, 1267, 1271, 1277, 1283, 1289, 1293],
     [1300, 1307, 1314, 1321, 1328, 1338, 1348, 1358],
     [1370, 1381, 1388, 1395, 1404, 1412, 1419, 1426],
     [1435, 1443, 1450, 1457, 1466, 1474, 1479, 1484],
     [1489, 1494, 1496, 1501, 1506, 1511, 1516, 1518],
     [1523, 1528, 1533, 1538, 1540, 1545, 1550, 1555],
     [1560, 1562, 1567, 1572, 1577, 1582, 1584, 1589],
     [1594, 1599, 1604, 1606, 1614, 1620, 1625, 1627],
     [1632, 1634, 1639, 1641, 1645, 1648, 1651, 1656],
     [1659, 1662, 1665, 1670, 1673, 1676, 1679, 1684],
     [1687, 1692, 1697, 1699, 1704, 1709, 1714, 1719],
     [1725, 1731, 1737, 1745, 1752, 1758, 1764, 1769],
     [1774, 1782, 1789, 1795, 1801, 1804, 1808, 1815],
     [1822, 1829, 1838, 1846, 1853, 1860, 1866, 1874],
     [1881, 1887, 1893, 1896, 1903, 1910, 1917, 1924],
     [1933, 1941, 1948, 1955, 1961, 1969, 1976, 1982],
     [1988, 1991, 1998, 2005, 2012, 2019, 2028, 2036],
     [2043, 2050, 2056, 2064, 2071, 2077, 2083, 2086],
     [2093, 2100, 2107, 2114, 2123, 2131, 2138, 2145],
     [2151, 2159, 2166, 2172, 2178, 2181, 2188, 2195],
     [2202, 2209, 2218, 2226, 2233, 2240, 2246, 2248],
     [2256, 2263, 2269, 2275, 2278, 2285, 2292, 2299],
     [2306, 2315, 2323, 2330, 2337, 2343, 2347, 2351],
     [2364, 2368, 2372, 2382, 2395, 2408, 2420, 2431],
     [2435, 2439, 2450, 2454, 2458, 2466, 2473, 2479],
     [2486, 2490, 2501, 2507, 2515, 2520, 2523, 2526],
     [2528, 2532, 2537, 2542, 2547, 2552, 2559, 2566],
     [2573, 2578, 2585, 2592, 2599, 2606, 2613, 2624],
     [2635, 2646, 2659, 2671, 2678, 2685, 2694, 2702],
     [2709, 2716, 2725, 2733, 2740, 2747, 2756, 2764],
     [2769, 2774, 2779, 2784, 2786, 2791, 2796, 2801],
     [2806, 2808, 2813, 2818, 2823, 2828, 2830, 2835],
     [2840, 2845, 2850, 2852, 2857, 2862, 2867, 2872],
     [2874, 2879, 2884, 2889, 2894, 2896, 2904, 2910],
     [2915, 2917, 2922, 2924, 2929, 2931, 2936, 2939],
     [2942, 2947, 2950, 2953, 2956, 2961, 2964, 2967],
     [2970, 2975, 2978, 2983, 2988, 2990, 2995, 3000],
     [3005, 3010, 3016, 3022, 3028, 3036, 3043, 3049],
     [3055, 3060, 3065, 3073, 3080, 3086, 3092, 3095],
     [3099, 3106, 3113, 3120, 3129, 3137, 3144, 3151],
     [3157, 3165, 3172, 3178, 3184, 3187, 3194, 3201],
     [3208, 3215, 3224, 3232, 3239, 3246, 3252, 3260],
     [3267, 3273, 3279, 3282, 3289, 3296, 3303, 3310],
     [3319, 3327, 3334, 3341, 3347, 3355, 3362, 3368],
     [3374, 3377, 3384, 3391, 3398, 3405, 3414, 3422],
     [3429, 3436, 3442, 3450, 3457, 3463, 3469, 3472],
     [3479, 3486, 3493, 3500, 3509, 3517, 3524, 3531],
     [3537, 3539, 3547, 3554, 3560, 3566, 3569, 3576],
     [3583, 3590, 3597, 3606, 3614, 3621, 3628, 3634],
     [3638, 3642, 3655, 3659, 3663, 3673, 3682, 3691],
     [3700, 3716, 3727, 3731, 3735, 3746, 3750, 3754],
     [3762, 3769, 3775, 3782, 3786, 3797, 3803, 3811],
     [3816, 3819, 3822, 3824, 3828, 3844, 3858, 3862],
     [3866, 3880, 3893, 3897, 3901, 3913, 3926, 3930],
     [3934, 3947, 3951, 3955, 3965, 3981, 3995, 4014],
     [4032, 4048, 4061, 4077, 4095, 4109, 4125, 4141],
     [4155, 4174, 4192, 4208, 4221, 4237, 4253, 4269],
     [4285, 4301, 4317, 4333, 4349, 4365, 4379, 4406],
     [4424, 4440, 4453, 4469, 4489, 4509, 4529, 4547],
     [4569, 4589, 4607, 4627, 4645, 4665, 4685, 4703],
     [4723, 4743, 4761, 4766, 4771, 4776, 4781, 4788],
     [4795, 4802, 4807, 4814, 4821, 4828, 4835, 4842],
     [4853, 4864, 4875, 4888, 4900, 4907, 4914, 4923],
     [4931, 4938, 4945, 4954, 4962, 4969, 4976, 4985],
     [4993, 4998, 5003, 5008, 5013, 5015, 5020, 5025],
     [5030, 5035, 5037, 5042, 5047, 5052, 5057, 5059],
     [5064, 5069, 5074, 5079, 5081, 5086, 5091, 5096],
     [5101, 5103, 5108, 5113, 5118, 5123, 5125, 5133],
     [5139, 5144, 5146, 5151, 5153, 5158, 5160, 5165],
     [5168, 5171, 5176, 5179, 5182, 5185, 5190, 5193],
     [5196, 5199, 5204, 5207, 5212, 5217, 5219, 5224],
     [5229, 5234, 5239, 5245, 5251, 5257, 5265, 5272],
     [5278, 5284, 5289, 5294, 5302, 5309, 5315, 5321],
     [5324, 5328, 5335, 5342, 5349, 5358, 5366, 5373],
     [5380, 5386, 5394, 5401, 5407, 5413, 5416, 5423],
     [5430, 5437, 5444, 5453, 5461, 5468, 5475, 5481],
     [5489, 5496, 5502, 5508, 5511, 5518, 5525, 5532],
     [5539, 5548, 5556, 5563, 5570, 5576, 5584, 5591],
     [5597, 5603, 5606, 5613, 5620, 5627, 5634, 5643],
     [5651, 5658, 5665, 5671, 5679, 5686, 5692, 5698],
     [5701, 5708, 5715, 5722, 5729, 5738, 5746, 5753],
     [5760, 5766, 5768, 5776, 5783, 5789, 5795, 5798],
     [5805, 5812, 5819, 5826, 5835, 5843, 5850, 5857],
     [5863, 5879, 5894, 5910, 5924, 5941, 5956, 5971],
     [5985, 5997, 6009, 6021, 6034, 6047, 6060, 6073],
     [6086, 6101, 6116, 6131, 6145, 6168, 6186, 6190],
     [6194, 6212, 6216, 6220, 6238, 6256, 6260, 6264],
     [6279, 6297, 6315, 6319, 6323, 6340, 6357, 6361],
     [6365, 6382, 6386, 6390, 6408, 6412, 6416, 6433],
     [6451, 6455, 6459, 6476, 6496, 6514, 6535, 6556],
     [6572, 6588, 6610, 6628, 6648, 6668, 6686, 6707],
     [6728, 6744, 6760, 6780, 6800, 6820, 6840, 6860],
     [6880, 6900, 6920, 6938, 6967, 6988, 7004, 7020],
     [7043, 7066, 7089, 7110, 7135, 7158, 7179, 7202],
     [7223, 7246, 7269, 7290, 7313, 7336, 7357, 7374],
     [7390, 7407, 7423, 7440, 7457, 7474, 7491, 7510],
     [7528, 7544, 7560, 7578, 7595, 7611, 7627, 7645],
     [7662, 7678, 7694, 7712, 7729, 7736, 7745, 7754],
     [7761, 7770, 7779, 7786, 7794, 7804, 7816, 7820],
     [7824, 7834, 7844, 7854, 7864, 7872, 7882, 7892],
     [7902, 7912, 7922, 7932, 7942, 7950, 7964, 7981],
     [7997, 8014, 8030, 8045, 8062, 8078, 8093, 8101],
     [8105, 8111, 8125, 8139, 8141, 8144, 8157, 8168],
     [8170, 8172, 8174, 8176, 8178, 8180, 8183, 8188],
     [8192, 8199, 8214, 8227, 8238, 8242, 8246, 8257],
     [8261, 8265, 8273, 8280, 8286, 8293, 8297, 8307],
     [8313, 8320, 8325, 8328, 8331, 8333, 8336, 8346],
     [8350, 8354, 8358, 8362, 8366, 8370, 8376, 8382],
     [8388, 8392, 8399, 8406, 8413, 8420, 8427, 8437],
     [8447, 8457, 8469, 8480, 8487, 8494, 8503, 8511],
     [8518, 8525, 8534, 8542, 8549, 8556, 8565, 8573],
     [8578, 8583, 8588, 8593, 8595, 8600, 8605, 8610],
     [8615, 8617, 8622, 8627, 8632, 8637, 8639, 8644],
     [8649, 8654, 8659, 8661, 8666, 8671, 8676, 8681],
     [8683, 8688, 8693, 8698, 8703, 8705, 8713, 8719],
     [8724, 8726, 8731, 8733, 8738, 8740, 8744, 8747],
     [8750, 8755, 8758, 8761, 8764, 8769, 8772, 8775],
     [8778, 8783, 8786, 8791, 8796, 8798, 8803, 8808],
     [8813, 8818, 8824, 8830, 8836, 8844, 8851, 8857],
     [8863, 8868, 8873, 8881, 8888, 8894, 8900, 8903],
     [8907, 8914, 8921, 8928, 8937, 8945, 8952, 8959],
     [8965, 8973, 8980, 8986, 8992, 8995, 9002, 9009],
     [9016, 9023, 9032, 9040, 9047, 9054, 9060, 9068]]"

definition sup_index_offsets_2 :: "int list list" where
  "sup_index_offsets_2 =
    [[9075, 9081, 9087, 9090, 9097, 9104, 9111, 9118],
     [9127, 9135, 9142, 9149, 9155, 9163, 9170, 9176],
     [9182, 9185, 9192, 9199, 9206, 9213, 9222, 9230],
     [9237, 9244, 9250, 9258, 9265, 9271, 9277, 9280],
     [9287, 9294, 9301, 9308, 9317, 9325, 9332, 9339],
     [9345, 9347, 9355, 9362, 9368, 9374, 9377, 9384],
     [9391, 9398, 9405, 9414, 9422, 9429, 9436, 9442],
     [9446, 9450, 9464, 9468, 9472, 9483, 9497, 9511],
     [9524, 9535, 9539, 9543, 9554, 9558, 9562, 9570],
     [9577, 9583, 9590, 9594, 9605, 9611, 9619, 9624],
     [9627, 9630, 9632, 9636, 9641, 9646, 9651, 9656],
     [9663, 9670, 9677, 9682, 9689, 9696, 9703, 9710],
     [9717, 9728, 9739, 9750, 9763, 9775, 9782, 9789],
     [9798, 9806, 9813, 9820, 9829, 9837, 9844, 9851],
     [9860, 9868, 9873, 9878, 9883, 9888, 9890, 9895],
     [9900, 9905, 9910, 9912, 9917, 9922, 9927, 9932],
     [9934, 9939, 9944, 9949, 9954, 9956, 9961, 9966],
     [9971, 9976, 9978, 9983, 9988, 9993, 9998, 10000],
     [10008, 10014, 10019, 10021, 10026, 10028, 10033, 10035],
     [10040, 10043, 10046, 10051, 10054, 10057, 10060, 10065],
     [10068, 10071, 10074, 10079, 10082, 10087, 10092, 10094],
     [10099, 10104, 10109, 10114, 10120, 10126, 10132, 10140],
     [10147, 10153, 10159, 10164, 10169, 10177, 10184, 10190],
     [10196, 10199, 10203, 10210, 10217, 10224, 10233, 10241],
     [10248, 10255, 10261, 10269, 10276, 10282, 10288, 10291],
     [10298, 10305, 10312, 10319, 10328, 10336, 10343, 10350],
     [10356, 10364, 10371, 10377, 10383, 10386, 10393, 10400],
     [10407, 10414, 10423, 10431, 10438, 10445, 10451, 10459],
     [10466, 10472, 10478, 10481, 10488, 10495, 10502, 10509],
     [10518, 10526, 10533, 10540, 10546, 10554, 10561, 10567],
     [10573, 10576, 10583, 10590, 10597, 10604, 10613, 10621],
     [10628, 10635, 10641, 10643, 10651, 10658, 10664, 10670],
     [10673, 10680, 10687, 10694, 10701, 10710, 10718, 10725],
     [10732, 10738, 10742, 10746, 10760, 10764, 10768, 10779],
     [10788, 10797, 10806, 10822, 10833, 10837, 10841, 10852],
     [10856, 10860, 10868, 10875, 10881, 10888, 10892, 10903],
     [10909, 10917, 10922, 10925, 10928, 10930, 10934, 10950],
     [10964, 10968, 10972, 10986, 10999, 11003, 11007, 11019],
     [11032, 11036, 11040, 11053, 11057, 11061, 11071, 11087],
     [11101, 11120, 11138, 11154, 11167, 11183, 11201, 11215],
     [11231, 11247, 11261, 11280, 11298, 11314, 11327, 11343],
     [11359, 11375, 11391, 11407, 11423, 11439, 11455, 11471],
     [11485, 11512, 11530, 11546, 11559, 11575, 11595, 11615],
     [11635, 11653, 11675, 11695, 11713, 11733, 11751, 11771],
     [11791, 11809, 11829, 11849, 11867, 11872, 11877, 11882],
     [11887, 11894, 11901, 11908, 11913, 11920, 11927, 11934],
     [11941, 11948, 11959, 11970, 11981, 11994, 12006, 12013],
     [12020, 12029, 12037, 12044, 12051, 12060, 12068, 12075],
     [12082, 12091, 12099, 12104, 12109, 12114, 12119, 12121],
     [12126, 12131, 12136, 12141, 12143, 12148, 12153, 12158],
     [12163, 12165, 12170, 12175, 12180, 12185, 12187, 12192],
     [12197, 12202, 12207, 12209, 12214, 12219, 12224, 12229],
     [12231, 12239, 12245, 12250, 12252, 12257, 12259, 12264],
     [12266, 12271, 12274, 12277, 12282, 12285, 12288, 12291],
     [12296, 12299, 12302, 12305, 12310, 12313, 12318, 12323],
     [12325, 12330, 12335, 12340, 12345, 12351, 12357, 12363],
     [12371, 12378, 12384, 12390, 12395, 12400, 12408, 12415],
     [12421, 12427, 12430, 12434, 12441, 12448, 12455, 12464],
     [12472, 12479, 12486, 12492, 12500, 12507, 12513, 12519],
     [12522, 12529, 12536, 12543, 12550, 12559, 12567, 12574],
     [12581, 12587, 12595, 12602, 12608, 12614, 12617, 12624],
     [12631, 12638, 12645, 12654, 12662, 12669, 12676, 12682],
     [12690, 12697, 12703, 12709, 12712, 12719, 12726, 12733],
     [12740, 12749, 12757, 12764, 12771, 12777, 12785, 12792],
     [12798, 12804, 12807, 12814, 12821, 12828, 12835, 12844],
     [12852, 12859, 12866, 12872, 12874, 12882, 12889, 12895],
     [12901, 12904, 12911, 12918, 12925, 12932, 12941, 12949],
     [12956, 12963, 12969, 12985, 13000, 13016, 13030, 13047],
     [13062, 13077, 13091, 13103, 13115, 13127, 13141, 13155],
     [13169, 13183, 13197, 13213, 13229, 13245, 13260, 13283],
     [13301, 13305, 13309, 13327, 13331, 13335, 13353, 13371],
     [13375, 13379, 13394, 13412, 13430, 13434, 13438, 13455],
     [13472, 13476, 13480, 13497, 13501, 13505, 13523, 13527],
     [13531, 13548, 13566, 13570, 13574, 13591, 13611, 13629],
     [13650, 13671, 13687, 13703, 13725, 13743, 13763, 13783],
     [13801, 13822, 13843, 13859, 13875, 13895, 13915, 13935],
     [13955, 13975, 13995, 14015, 14035, 14053, 14082, 14103],
     [14119, 14135, 14158, 14181, 14204, 14225, 14250, 14273],
     [14294, 14317, 14338, 14361, 14384, 14405, 14428, 14451],
     [14472, 14489, 14505, 14522, 14538, 14555, 14572, 14589],
     [14606, 14625, 14643, 14659, 14675, 14693, 14710, 14726],
     [14742, 14760, 14777, 14793, 14809, 14827, 14844, 14851],
     [14860, 14869, 14876, 14885, 14894, 14901, 14909, 14919],
     [14931, 14935, 14939, 14949, 14959, 14969, 14979, 14987],
     [14997, 15007, 15017, 15027, 15037, 15047, 15057, 15065],
     [15079, 15096, 15112, 15129, 15145, 15160, 15177, 15193],
     [15208, 15216, 15220, 15226, 15243, 15263, 15281, 15293],
     [15297, 15301, 15313, 15317, 15321, 15329, 15336, 15342],
     [15349, 15353, 15366, 15372, 15382, 15387, 15390, 15393],
     [15395, 15401, 15408, 15415, 15422, 15429, 15438, 15447],
     [15456, 15463, 15470, 15477, 15484, 15491, 15498, 15511],
     [15524, 15537, 15552, 15566, 15573, 15580, 15589, 15597],
     [15604, 15611, 15620, 15628, 15635, 15642, 15651, 15659],
     [15664, 15669, 15674, 15679, 15681, 15686, 15691, 15696],
     [15701, 15703, 15708, 15713, 15718, 15723, 15725, 15730],
     [15735, 15740, 15745, 15747, 15752, 15757, 15762, 15767],
     [15769, 15774, 15779, 15784, 15789, 15791, 15799, 15805],
     [15810, 15812, 15817, 15819, 15824, 15826, 15833, 15836],
     [15839, 15844, 15847, 15850, 15853, 15858, 15861, 15864],
     [15867, 15872, 15875, 15880, 15885, 15887, 15892, 15897],
     [15902, 15907, 15913, 15919, 15925, 15933, 15940, 15946],
     [15952, 15957, 15962, 15970, 15977, 15983, 15989, 15992],
     [15996, 16003, 16010, 16017, 16026, 16034, 16041, 16048],
     [16054, 16062, 16069, 16075, 16081, 16084, 16091, 16098],
     [16105, 16112, 16121, 16129, 16136, 16143, 16149, 16157],
     [16164, 16170, 16176, 16179, 16186, 16193, 16200, 16207],
     [16216, 16224, 16231, 16238, 16244, 16252, 16259, 16265],
     [16271, 16274, 16281, 16288, 16295, 16302, 16311, 16319],
     [16326, 16333, 16339, 16347, 16354, 16360, 16366, 16369],
     [16376, 16383, 16390, 16397, 16406, 16414, 16421, 16428],
     [16434, 16436, 16444, 16451, 16457, 16463, 16466, 16473],
     [16480, 16487, 16494, 16503, 16511, 16518, 16525, 16531],
     [16535, 16539, 16557, 16561, 16565, 16580, 16584, 16588],
     [16604, 16623, 16642, 16660, 16672, 16676, 16680, 16692],
     [16696, 16700, 16708, 16715, 16721, 16728, 16732, 16746],
     [16752, 16763, 16768, 16771, 16774, 16776, 16783, 16791],
     [16799, 16807, 16815, 16825, 16835, 16845, 16853, 16860],
     [16867, 16874, 16881, 16888, 16902, 16916, 16930, 16946],
     [16961, 16968, 16975, 16984, 16992, 16999, 17006, 17015],
     [17023, 17030, 17037, 17046, 17054, 17059, 17064, 17069],
     [17074, 17076, 17081, 17086, 17091, 17096, 17098, 17103],
     [17108, 17113, 17118, 17120, 17125, 17130, 17135, 17140],
     [17142, 17147, 17152, 17157, 17162, 17164, 17169, 17174],
     [17179, 17184, 17186, 17194, 17200, 17205, 17207, 17212],
     [17214, 17219, 17221, 17229, 17232, 17235, 17240, 17243],
     [17246, 17249, 17254, 17257, 17260, 17263, 17268, 17271],
     [17276, 17281, 17283, 17288, 17293, 17298, 17303, 17309],
     [17315, 17321, 17329, 17336, 17342, 17348, 17353, 17358],
     [17366, 17373, 17379, 17385, 17388, 17392, 17399, 17406],
     [17413, 17422, 17430, 17437, 17444, 17450, 17458, 17465],
     [17471, 17477, 17480, 17487, 17494, 17501, 17508, 17517],
     [17525, 17532, 17539, 17545, 17553, 17560, 17566, 17572],
     [17575, 17582, 17589, 17596, 17603, 17612, 17620, 17627],
     [17634, 17640, 17648, 17655, 17661, 17667, 17670, 17677],
     [17684, 17691, 17698, 17707, 17715, 17722, 17729, 17735],
     [17743, 17750, 17756, 17762, 17765, 17772, 17779, 17786],
     [17793, 17802, 17810, 17817, 17824, 17830, 17832, 17840],
     [17847, 17853, 17859, 17862, 17869, 17876, 17883, 17890],
     [17899, 17907, 17914, 17921, 17927, 17931, 17935, 17953],
     [17957, 17961, 17977, 17996, 18015, 18034, 18049, 18061],
     [18065, 18069, 18081, 18085, 18089, 18097, 18104, 18110],
     [18117, 18121, 18134, 18140, 18150, 18155, 18158, 18161],
     [18163, 18169, 18176, 18183, 18190, 18197, 18206, 18215],
     [18224, 18231, 18238, 18245, 18252, 18259, 18266, 18279],
     [18292, 18305, 18320, 18334, 18341, 18348, 18357, 18365],
     [18372, 18379, 18388, 18396, 18403, 18410, 18419, 18427],
     [18432, 18437, 18442, 18447, 18449, 18454, 18459, 18464],
     [18469, 18471, 18476, 18481, 18486, 18491, 18493, 18498],
     [18503, 18508, 18513, 18515, 18520, 18525, 18530, 18535],
     [18537, 18542, 18547, 18552, 18557, 18559, 18567, 18573]]"

definition sup_index_offsets_3 :: "int list list" where
  "sup_index_offsets_3 =
    [[18578, 18580, 18585, 18587, 18592, 18594, 18601, 18604],
     [18607, 18612, 18615, 18618, 18621, 18626, 18629, 18632],
     [18635, 18640, 18643, 18648, 18653, 18655, 18660, 18665],
     [18670, 18675, 18681, 18687, 18693, 18701, 18708, 18714],
     [18720, 18725, 18730, 18738, 18745, 18751, 18757, 18760],
     [18764, 18771, 18778, 18785, 18794, 18802, 18809, 18816],
     [18822, 18830, 18837, 18843, 18849, 18852, 18859, 18866],
     [18873, 18880, 18889, 18897, 18904, 18911, 18917, 18925],
     [18932, 18938, 18944, 18947, 18954, 18961, 18968, 18975],
     [18984, 18992, 18999, 19006, 19012, 19020, 19027, 19033],
     [19039, 19042, 19049, 19056, 19063, 19070, 19079, 19087],
     [19094, 19101, 19107, 19115, 19122, 19128, 19134, 19137],
     [19144, 19151, 19158, 19165, 19174, 19182, 19189, 19196],
     [19202, 19204, 19212, 19219, 19225, 19231, 19234, 19241],
     [19248, 19255, 19262, 19271, 19279, 19286, 19293, 19299],
     [19314, 19328, 19343, 19356, 19376, 19390, 19408, 19423],
     [19436, 19449, 19462, 19479, 19496, 19513, 19530, 19547],
     [19566, 19585, 19604, 19622, 19638, 19653, 19669, 19684],
     [19700, 19720, 19740, 19760, 19782, 19803, 19818, 19833],
     [19850, 19866, 19881, 19896, 19913, 19929, 19944, 19959],
     [19976, 19992, 20009, 20028, 20047, 20064, 20073, 20085],
     [20093, 20097, 20106, 20135, 20186, 20231, 20268, 20278],
     [20288, 20323, 20333, 20343, 20365, 20384, 20400, 20419],
     [20429, 20457, 20473, 20492, 20505, 20512, 20519, 20523],
     [20530, 20540, 20550, 20560, 20570, 20586, 20602, 20618],
     [20628, 20647, 20666, 20685, 20704, 20723, 20751, 20779],
     [20807, 20841, 20872, 20891, 20910, 20935, 20957, 20976],
     [20995, 21020, 21042, 21061, 21080, 21105, 21127, 21140],
     [21153, 21166, 21179, 21183, 21196, 21209, 21222, 21235],
     [21239, 21252, 21265, 21278, 21291, 21295, 21308, 21321],
     [21334, 21347, 21351, 21364, 21377, 21390, 21403, 21407],
     [21420, 21433, 21446, 21459, 21463, 21485, 21501, 21514],
     [21518, 21531, 21535, 21548, 21552, 21562, 21569, 21576],
     [21589, 21596, 21603, 21610, 21623, 21630, 21637, 21644],
     [21657, 21664, 21677, 21690, 21694, 21707, 21720, 21733],
     [21746, 21762, 21778, 21794, 21816, 21835, 21851, 21867],
     [21880, 21893, 21915, 21934, 21950, 21966, 21973, 21983],
     [22002, 22021, 22040, 22065, 22087, 22106, 22125, 22141],
     [22163, 22182, 22198, 22214, 22221, 22240, 22259, 22278],
     [22297, 22322, 22344, 22363, 22382, 22398, 22420, 22439],
     [22455, 22471, 22478, 22497, 22516, 22535, 22554, 22579],
     [22601, 22620, 22639, 22655, 22677, 22696, 22712, 22728],
     [22735, 22754, 22773, 22792, 22811, 22836, 22858, 22877],
     [22896, 22912, 22934, 22953, 22969, 22985, 22992, 23011],
     [23030, 23049, 23068, 23093, 23115, 23134, 23153, 23169],
     [23173, 23195, 23214, 23230, 23246, 23253, 23272, 23291],
     [23310, 23329, 23354, 23376, 23395, 23414, 23430, 23440],
     [23450, 23495, 23505, 23515, 23551, 23561, 23571, 23615],
     [23664, 23689, 23714, 23760, 23807, 23831, 23855, 23894],
     [23941, 23992, 24017, 24042, 24091, 24140, 24164, 24188],
     [24236, 24284, 24329, 24366, 24376, 24386, 24421, 24431],
     [24441, 24463, 24482, 24498, 24517, 24527, 24558, 24574],
     [24596, 24609, 24616, 24623, 24627, 24637, 24650, 24663],
     [24676, 24689, 24708, 24727, 24746, 24759, 24778, 24797],
     [24816, 24835, 24854, 24885, 24916, 24947, 24984, 25018],
     [25037, 25056, 25081, 25103, 25122, 25141, 25166, 25188],
     [25207, 25226, 25251, 25273, 25286, 25299, 25312, 25325],
     [25329, 25342, 25355, 25368, 25381, 25385, 25398, 25411],
     [25424, 25437, 25441, 25454, 25467, 25480, 25493, 25497],
     [25510, 25523, 25536, 25549, 25553, 25566, 25579, 25592],
     [25605, 25609, 25631, 25647, 25660, 25664, 25677, 25681],
     [25694, 25698, 25711, 25718, 25725, 25738, 25745, 25752],
     [25759, 25772, 25779, 25786, 25793, 25806, 25813, 25826],
     [25839, 25843, 25856, 25869, 25882, 25895, 25911, 25927],
     [25943, 25965, 25984, 26000, 26016, 26029, 26042, 26064],
     [26083, 26099, 26115, 26122, 26132, 26151, 26170, 26189],
     [26214, 26236, 26255, 26274, 26290, 26312, 26331, 26347],
     [26363, 26370, 26389, 26408, 26427, 26446, 26471, 26493],
     [26512, 26531, 26547, 26569, 26588, 26604, 26620, 26627],
     [26646, 26665, 26684, 26703, 26728, 26750, 26769, 26788],
     [26804, 26826, 26845, 26861, 26877, 26884, 26903, 26922],
     [26941, 26960, 26985, 27007, 27026, 27045, 27061, 27083],
     [27102, 27118, 27134, 27141, 27160, 27179, 27198, 27217],
     [27242, 27264, 27283, 27302, 27318, 27322, 27344, 27363],
     [27379, 27395, 27402, 27421, 27440, 27459, 27478, 27503],
     [27525, 27544, 27563, 27579, 27589, 27599, 27644, 27654],
     [27664, 27703, 27750, 27801, 27826, 27851, 27900, 27949],
     [27973, 27997, 28032, 28067, 28102, 28148, 28185, 28195],
     [28205, 28240, 28250, 28260, 28282, 28301, 28317, 28336],
     [28346, 28376, 28392, 28413, 28426, 28433, 28440, 28444],
     [28453, 28507, 28557, 28582, 28607, 28655, 28702, 28726],
     [28750, 28774, 28798, 28822, 28846, 28862, 28886, 28910],
     [28934, 28958, 28974, 28998, 29022, 29046, 29070, 29086],
     [29110, 29134, 29158, 29182, 29198, 29222, 29246, 29270],
     [29294, 29310, 29334, 29358, 29382, 29406, 29422, 29452],
     [29480, 29503, 29520, 29543, 29560, 29583, 29598, 29616],
     [29635, 29654, 29677, 29696, 29717, 29738, 29763, 29784],
     [29805, 29826, 29851, 29872, 29896, 29920, 29936, 29960],
     [29985, 30010, 30035, 30063, 30091, 30119, 30151, 30181],
     [30209, 30237, 30262, 30286, 30317, 30347, 30373, 30399],
     [30417, 30440, 30470, 30500, 30530, 30564, 30596, 30626],
     [30656, 30682, 30713, 30743, 30769, 30795, 30813, 30842],
     [30872, 30902, 30932, 30966, 30998, 31028, 31058, 31084],
     [31115, 31145, 31171, 31197, 31215, 31244, 31274, 31304],
     [31334, 31368, 31400, 31430, 31460, 31486, 31517, 31547],
     [31573, 31599, 31617, 31646, 31676, 31706, 31736, 31770],
     [31802, 31832, 31862, 31888, 31919, 31949, 31975, 32001],
     [32019, 32048, 32078, 32108, 32138, 32172, 32204, 32234],
     [32264, 32290, 32306, 32337, 32367, 32393, 32419, 32437],
     [32466, 32496, 32526, 32556, 32590, 32622, 32652, 32682],
     [32708, 32762, 32812, 32859, 32904, 32946, 32982, 33024],
     [33082, 33132, 33186, 33240, 33290, 33337, 33382, 33424],
     [33460, 33502, 33556, 33610, 33664, 33718, 33772, 33826],
     [33880, 33934, 33984, 34047, 34092, 34134, 34170, 34212],
     [34261, 34310, 34359, 34404, 34457, 34506, 34551, 34600],
     [34645, 34694, 34743, 34788, 34837, 34886, 34931, 34943],
     [34955, 34967, 34979, 34997, 35015, 35033, 35045, 35064],
     [35083, 35102, 35121, 35140, 35170, 35200, 35230, 35266],
     [35299, 35318, 35337, 35362, 35384, 35403, 35422, 35447],
     [35469, 35488, 35507, 35532, 35554, 35567, 35580, 35593],
     [35606, 35610, 35623, 35636, 35649, 35662, 35666, 35679],
     [35692, 35705, 35718, 35722, 35735, 35748, 35761, 35774],
     [35778, 35791, 35804, 35817, 35830, 35834, 35847, 35860],
     [35873, 35886, 35890, 35912, 35928, 35941, 35945, 35958],
     [35962, 35975, 35979, 35991, 35998, 36005, 36018, 36025],
     [36032, 36039, 36052, 36059, 36066, 36073, 36086, 36093],
     [36106, 36119, 36123, 36136, 36149, 36162, 36175, 36191],
     [36207, 36223, 36245, 36264, 36280, 36296, 36309, 36322],
     [36344, 36363, 36379, 36395, 36402, 36412, 36431, 36450],
     [36469, 36494, 36516, 36535, 36554, 36570, 36592, 36611],
     [36627, 36643, 36650, 36669, 36688, 36707, 36726, 36751],
     [36773, 36792, 36811, 36827, 36849, 36868, 36884, 36900],
     [36907, 36926, 36945, 36964, 36983, 37008, 37030, 37049],
     [37068, 37084, 37106, 37125, 37141, 37157, 37164, 37183],
     [37202, 37221, 37240, 37265, 37287, 37306, 37325, 37341],
     [37363, 37382, 37398, 37414, 37421, 37440, 37459, 37478],
     [37497, 37522, 37544, 37563, 37582, 37598, 37602, 37624],
     [37643, 37659, 37675, 37682, 37701, 37720, 37739, 37758],
     [37783, 37805, 37824, 37843, 37859, 37905, 37948, 37994],
     [38034, 38086, 38129, 38175, 38219, 38257, 38295, 38333],
     [38376, 38419, 38462, 38505, 38548, 38597, 38646, 38695],
     [38741, 38801, 38854, 38879, 38904, 38956, 39007, 39031],
     [39055, 39112, 39165, 39215, 39264, 39306, 39348, 39409],
     [39462, 39519, 39576, 39629, 39679, 39728, 39770, 39812],
     [39869, 39926, 39983, 40040, 40097, 40154, 40211, 40268],
     [40321, 40387, 40436, 40478, 40520, 40573, 40626, 40679],
     [40728, 40785, 40838, 40887, 40940, 40989, 41042, 41095],
     [41144, 41197, 41250, 41299, 41348, 41394, 41443, 41489],
     [41538, 41590, 41642, 41694, 41752, 41807, 41853, 41899],
     [41951, 42000, 42046, 42092, 42144, 42193, 42239, 42285],
     [42337, 42386, 42415, 42450, 42485, 42514, 42539, 42565],
     [42592, 42622, 42666, 42712, 42736, 42760, 42783, 42806],
     [42829, 42852, 42867, 42890, 42913, 42936, 42959, 42974],
     [42997, 43020, 43043, 43066, 43081, 43104, 43127, 43150],
     [43173, 43188, 43211, 43234, 43257, 43280, 43295, 43318],
     [43341, 43364, 43387, 43402, 43431, 43458, 43480, 43496],
     [43518, 43534, 43556, 43570, 43587, 43605, 43623, 43645],
     [43663, 43683, 43703, 43727, 43747, 43767, 43787, 43811],
     [43831, 43854, 43877, 43892, 43915, 43939, 43963, 43987],
     [44014, 44041, 44068, 44099, 44128, 44155, 44182, 44206]]"

definition sup_index_offsets_4 :: "int list list" where
  "sup_index_offsets_4 =
    [[44229, 44259, 44288, 44313, 44338, 44355, 44377, 44406],
     [44435, 44464, 44497, 44528, 44557, 44586, 44611, 44641],
     [44670, 44695, 44720, 44737, 44765, 44794, 44823, 44852],
     [44885, 44916, 44945, 44974, 44999, 45029, 45058, 45083],
     [45108, 45125, 45153, 45182, 45211, 45240, 45273, 45304],
     [45333, 45362, 45387, 45417, 45446, 45471, 45496, 45513],
     [45541, 45570, 45599, 45628, 45661, 45692, 45721, 45750],
     [45775, 45805, 45834, 45859, 45884, 45901, 45929, 45958],
     [45987, 46016, 46049, 46080, 46109, 46138, 46163, 46178],
     [46208, 46237, 46262, 46287, 46304, 46332, 46361, 46390],
     [46419, 46452, 46483, 46512, 46541, 46566, 46600, 46634],
     [46668, 46702, 46732, 46766, 46800, 46834, 46868, 46902],
     [46936, 46970, 47000, 47047, 47093, 47139, 47187, 47235],
     [47281, 47329, 47377, 47423, 47445, 47455, 47472]]"

definition sup_cond_offsets :: "int list" where
  "sup_cond_offsets =
     concat sup_cond_offsets_1 @ concat sup_cond_offsets_2 @ concat sup_cond_offsets_3 @
     concat sup_cond_offsets_4"

definition sup_cond_lengths :: "int list" where
  "sup_cond_lengths =
     concat sup_cond_lengths_1 @ concat sup_cond_lengths_2 @ concat sup_cond_lengths_3 @
     concat sup_cond_lengths_4"

definition sup_key_offsets :: "int list" where
  "sup_key_offsets =
     concat sup_key_offsets_1 @ concat sup_key_offsets_2 @ concat sup_key_offsets_3 @
     concat sup_key_offsets_4"

definition sup_single_lengths :: "int list" where
  "sup_single_lengths =
     concat sup_single_lengths_1 @ concat sup_single_lengths_2 @ concat sup_single_lengths_3 @
     concat sup_single_lengths_4"

definition sup_range_lengths :: "int list" where
  "sup_range_lengths =
     concat sup_range_lengths_1 @ concat sup_range_lengths_2 @ concat sup_range_lengths_3 @
     concat sup_range_lengths_4"

definition sup_index_offsets :: "int list" where
  "sup_index_offsets =
     concat sup_index_offsets_1 @ concat sup_index_offsets_2 @ concat sup_index_offsets_3 @
     concat sup_index_offsets_4"

lemma sup_cond_offsets_1_state: "all6 sup_state 0 1200
     (concat sup_cond_offsets_1) (concat sup_cond_lengths_1) (concat sup_key_offsets_1)
     (concat sup_single_lengths_1) (concat sup_range_lengths_1) (concat sup_index_offsets_1)"
  by (simp only: sup_state_eq row_arith
      sup_cond_offsets_1_def sup_cond_lengths_1_def sup_key_offsets_1_def
      sup_single_lengths_1_def sup_range_lengths_1_def sup_index_offsets_1_def)

lemma sup_cond_offsets_2_state: "all6 sup_state 1200 2400
     (concat sup_cond_offsets_2) (concat sup_cond_lengths_2) (concat sup_key_offsets_2)
     (concat sup_single_lengths_2) (concat sup_range_lengths_2) (concat sup_index_offsets_2)"
  by (simp only: sup_state_eq row_arith
      sup_cond_offsets_2_def sup_cond_lengths_2_def sup_key_offsets_2_def
      sup_single_lengths_2_def sup_range_lengths_2_def sup_index_offsets_2_def)

lemma sup_cond_offsets_3_state: "all6 sup_state 2400 3600
     (concat sup_cond_offsets_3) (concat sup_cond_lengths_3) (concat sup_key_offsets_3)
     (concat sup_single_lengths_3) (concat sup_range_lengths_3) (concat sup_index_offsets_3)"
  by (simp only: sup_state_eq row_arith
      sup_cond_offsets_3_def sup_cond_lengths_3_def sup_key_offsets_3_def
      sup_single_lengths_3_def sup_range_lengths_3_def sup_index_offsets_3_def)

lemma sup_cond_offsets_4_state: "all6 sup_state 3600 3711
     (concat sup_cond_offsets_4) (concat sup_cond_lengths_4) (concat sup_key_offsets_4)
     (concat sup_single_lengths_4) (concat sup_range_lengths_4) (concat sup_index_offsets_4)"
  by (simp only: sup_state_eq row_arith
      sup_cond_offsets_4_def sup_cond_lengths_4_def sup_key_offsets_4_def
      sup_single_lengths_4_def sup_range_lengths_4_def sup_index_offsets_4_def)

lemma sup_cond_offsets_state: "all6 sup_state 0 3711 sup_cond_offsets sup_cond_lengths sup_key_offsets sup_single_lengths sup_range_lengths sup_index_offsets"
  unfolding sup_cond_offsets_def sup_cond_lengths_def sup_key_offsets_def sup_single_lengths_def sup_range_lengths_def sup_index_offsets_def
  by (intro all6_append)
    (rule
      sup_cond_offsets_1_state sup_cond_offsets_2_state sup_cond_offsets_3_state
      sup_cond_offsets_4_state)+

end
