(* ===== verification/Sip_Uri_Cond_Keys.thy ===== *)
theory Sip_Uri_Cond_Keys
  imports Ragel_Cond
begin

text \<open>
  The array \<open>cond_keys\<close> of ext/sip_parser/sip_uri_parser.c.
\<close>

definition sup_cond_keys_1 :: "int list list" where
  "sup_cond_keys_1 =
    [[9, 9, 13, 13, 32, 32, 33, 33],
     [34, 34, 37, 37, 39, 39, 42, 42],
     [43, 43, 45, 45, 46, 46, 48, 57],
     [60, 60, 65, 82, 83, 83, 84, 84],
     [85, 90, 95, 95, 96, 96, 97, 114],
     [115, 115, 116, 116, 117, 122, 126, 126],
     [9, 9, 13, 13, 32, 32, 60, 60],
     [10, 10, 9, 9, 32, 32, 9, 9],
     [32, 32, 60, 60, 65, 82, 83, 83],
     [84, 84, 85, 90, 97, 114, 115, 115],
     [116, 116, 117, 122, 43, 43, 45, 45],
     [46, 46, 48, 57, 58, 58, 65, 90],
     [97, 122, 33, 33, 35, 35, 36, 36],
     [37, 37, 38, 38, 39, 39, 40, 40],
     [41, 41, 42, 42, 43, 43, 44, 44],
     [45, 45, 46, 46, 47, 47, 48, 48],
     [49, 49, 50, 50, 51, 57, 58, 58],
     [59, 59, 61, 61, 62, 62, 63, 63],
     [64, 64, 65, 90, 91, 91, 95, 95],
     [97, 122, 126, 126, 33, 33, 35, 35],
     [36, 36, 37, 37, 38, 38, 39, 39],
     [40, 40, 41, 41, 42, 42, 43, 43],
     [44, 44, 45, 45, 46, 46, 47, 47],
     [48, 57, 58, 58, 59, 59, 61, 61],
     [62, 62, 63, 63, 64, 64, 65, 90],
     [95, 95, 97, 122, 126, 126, 33, 33],
     [35, 35, 36, 36, 37, 37, 38, 38],
     [39, 39, 40, 40, 41, 41, 42, 42],
     [43, 43, 44, 44, 45, 45, 46, 46],
     [47, 47, 48, 57, 58, 58, 59, 59],
     [61, 61, 63, 63, 64, 64, 65, 90],
     [95, 95, 97, 122, 126, 126, 48, 57],
     [65, 65, 66, 66, 67, 67, 68, 68],
     [69, 69, 70, 70, 97, 97, 98, 98],
     [99, 99, 100, 100, 101, 101, 102, 102],
     [48, 57, 65, 65, 66, 66, 67, 67],
     [68, 68, 69, 69, 70, 70, 97, 97],
     [98, 98, 99, 99, 100, 100, 101, 101],
     [102, 102, 33, 33, 36, 36, 37, 37],
     [38, 38, 39, 39, 40, 40, 41, 41],
     [42, 42, 43, 43, 44, 44, 45, 45],
     [46, 46, 48, 57, 61, 61, 64, 64],
     [65, 90, 95, 95, 97, 122, 126, 126],
     [48, 57, 65, 65, 66, 66, 67, 67],
     [68, 68, 69, 69, 70, 70, 97, 97],
     [98, 98, 99, 99, 100, 100, 101, 101],
     [102, 102, 48, 57, 65, 65, 66, 66],
     [67, 67, 68, 68, 69, 69, 70, 70],
     [97, 97, 98, 98, 99, 99, 100, 100],
     [101, 101, 102, 102, 48, 48, 49, 49],
     [50, 50, 51, 57, 65, 90, 91, 91],
     [97, 122, 45, 45, 46, 46, 48, 57],
     [65, 90, 95, 95, 97, 122, 45, 45],
     [48, 57, 65, 90, 95, 95, 97, 122],
     [45, 45, 46, 46, 48, 57, 65, 90],
     [95, 95, 97, 122, 48, 57, 65, 90],
     [97, 122, 45, 45, 46, 46, 48, 57],
     [58, 58, 62, 62, 63, 63, 65, 90],
     [95, 95, 97, 122, 45, 45, 48, 57],
     [65, 90, 95, 95, 97, 122, 48, 57],
     [58, 58, 62, 62, 63, 63, 65, 90],
     [97, 122, 48, 48, 49, 53, 54, 54],
     [55, 57, 48, 48, 49, 57, 48, 48],
     [49, 57, 49, 57, 62, 62, 63, 63],
     [9, 9, 13, 13, 32, 32, 59, 59],
     [10, 10, 9, 9, 32, 32, 9, 9],
     [13, 13, 32, 32, 59, 59, 10, 10],
     [9, 9, 32, 32, 9, 9, 32, 32],
     [59, 59, 9, 9, 13, 13, 32, 32],
     [33, 33, 37, 37, 39, 39, 42, 42],
     [43, 43, 45, 45, 46, 46, 48, 57],
     [65, 90, 95, 95, 96, 96, 97, 122],
     [126, 126, 10, 10, 9, 9, 32, 32],
     [9, 9, 32, 32, 33, 33, 37, 37],
     [39, 39, 42, 42, 43, 43, 45, 45],
     [46, 46, 48, 57, 65, 90, 95, 95],
     [96, 96, 97, 122, 126, 126, 9, 9],
     [13, 13, 32, 32, 33, 33, 37, 37],
     [39, 39, 42, 42, 43, 43, 45, 45],
     [46, 46, 48, 57, 59, 59, 61, 61],
     [65, 90, 95, 95, 96, 96, 97, 122],
     [126, 126, 9, 9, 13, 13, 32, 32],
     [59, 59, 61, 61, 10, 10, 9, 9],
     [32, 32, 9, 9, 32, 32, 59, 59],
     [61, 61, 9, 9, 13, 13, 32, 32],
     [33, 33, 34, 34, 37, 37, 39, 39],
     [42, 42, 43, 43, 45, 45, 46, 46],
     [48, 48, 49, 49, 50, 50, 51, 57],
     [65, 90, 91, 91, 95, 95, 96, 96],
     [97, 122, 126, 126, 10, 10, 9, 9],
     [32, 32, 9, 9, 32, 32, 33, 33],
     [34, 34, 37, 37, 39, 39, 42, 42],
     [43, 43, 45, 45, 46, 46, 48, 48],
     [49, 49, 50, 50, 51, 57, 65, 90],
     [91, 91, 95, 95, 96, 96, 97, 122],
     [126, 126, 9, 9, 13, 13, 32, 32],
     [33, 33, 37, 37, 39, 39, 42, 42],
     [43, 43, 45, 45, 46, 46, 48, 57],
     [59, 59, 65, 90, 95, 95, 96, 96],
     [97, 122, 126, 126, 9, 9, 13, 13],
     [32, 32, 59, 59, -64, -33, -32, -17],
     [-16, -9, -8, -5, -4, -3, 9, 9],
     [13, 13, 32, 32, 33, 33, 34, 34],
     [35, 91, 92, 92, 93, 126, -128, -65],
     [-128, -65, -128, -65, -128, -65, -128, -65],
     [10, 10, 9, 9, 32, 32, 9, 9],
     [13, 13, 32, 32, 59, 59, 0, 9],
     [11, 12, 14, 127, 48, 57, 58, 58],
     [65, 65, 66, 66, 67, 67, 68, 68],
     [69, 69, 70, 70, 97, 97, 98, 98],
     [99, 99, 100, 100, 101, 101, 102, 102],
     [48, 57, 58, 58, 65, 65, 66, 66],
     [67, 67, 68, 68, 69, 69, 70, 70],
     [97, 97, 98, 98, 99, 99, 100, 100],
     [101, 101, 102, 102, 48, 57, 58, 58],
     [65, 65, 66, 66, 67, 67, 68, 68],
     [69, 69, 70, 70, 97, 97, 98, 98],
     [99, 99, 100, 100, 101, 101, 102, 102],
     [48, 57, 58, 58, 65, 65, 66, 66],
     [67, 67, 68, 68, 69, 69, 70, 70],
     [97, 97, 98, 98, 99, 99, 100, 100],
     [101, 101, 102, 102, 58, 58, 48, 57],
     [58, 58, 65, 65, 66, 66, 67, 67],
     [68, 68, 69, 69, 70, 70, 97, 97],
     [98, 98, 99, 99, 100, 100, 101, 101],
     [102, 102, 48, 57, 58, 58, 65, 65],
     [66, 66, 67, 67, 68, 68, 69, 69],
     [70, 70, 97, 97, 98, 98, 99, 99],
     [100, 100, 101, 101, 102, 102, 48, 57],
     [58, 58, 65, 65, 66, 66, 67, 67],
     [68, 68, 69, 69, 70, 70, 97, 97],
     [98, 98, 99, 99, 100, 100, 101, 101],
     [102, 102, 48, 57, 58, 58, 65, 65],
     [66, 66, 67, 67, 68, 68, 69, 69],
     [70, 70, 97, 97, 98, 98, 99, 99],
     [100, 100, 101, 101, 102, 102, 58, 58],
     [48, 57, 58, 58, 65, 65, 66, 66],
     [67, 67, 68, 68, 69, 69, 70, 70],
     [97, 97, 98, 98, 99, 99, 100, 100],
     [101, 101, 102, 102, 48, 57, 58, 58],
     [65, 65, 66, 66, 67, 67, 68, 68],
     [69, 69, 70, 70, 97, 97, 98, 98],
     [99, 99, 100, 100, 101, 101, 102, 102],
     [48, 57, 58, 58, 65, 65, 66, 66],
     [67, 67, 68, 68, 69, 69, 70, 70],
     [97, 97, 98, 98, 99, 99, 100, 100],
     [101, 101, 102, 102, 48, 57, 58, 58],
     [65, 65, 66, 66, 67, 67, 68, 68],
     [69, 69, 70, 70, 97, 97, 98, 98],
     [99, 99, 100, 100, 101, 101, 102, 102]]"

definition sup_cond_keys_2 :: "int list list" where
  "sup_cond_keys_2 =
    [[58, 58, 48, 57, 58, 58, 65, 65],
     [66, 66, 67, 67, 68, 68, 69, 69],
     [70, 70, 97, 97, 98, 98, 99, 99],
     [100, 100, 101, 101, 102, 102, 48, 57],
     [58, 58, 65, 65, 66, 66, 67, 67],
     [68, 68, 69, 69, 70, 70, 97, 97],
     [98, 98, 99, 99, 100, 100, 101, 101],
     [102, 102, 48, 57, 58, 58, 65, 65],
     [66, 66, 67, 67, 68, 68, 69, 69],
     [70, 70, 97, 97, 98, 98, 99, 99],
     [100, 100, 101, 101, 102, 102, 48, 57],
     [58, 58, 65, 65, 66, 66, 67, 67],
     [68, 68, 69, 69, 70, 70, 97, 97],
     [98, 98, 99, 99, 100, 100, 101, 101],
     [102, 102, 58, 58, 48, 57, 58, 58],
     [65, 65, 66, 66, 67, 67, 68, 68],
     [69, 69, 70, 70, 97, 97, 98, 98],
     [99, 99, 100, 100, 101, 101, 102, 102],
     [48, 57, 58, 58, 65, 65, 66, 66],
     [67, 67, 68, 68, 69, 69, 70, 70],
     [97, 97, 98, 98, 99, 99, 100, 100],
     [101, 101, 102, 102, 48, 57, 58, 58],
     [65, 65, 66, 66, 67, 67, 68, 68],
     [69, 69, 70, 70, 97, 97, 98, 98],
     [99, 99, 100, 100, 101, 101, 102, 102],
     [48, 57, 58, 58, 65, 65, 66, 66],
     [67, 67, 68, 68, 69, 69, 70, 70],
     [97, 97, 98, 98, 99, 99, 100, 100],
     [101, 101, 102, 102, 58, 58, 48, 57],
     [58, 58, 65, 65, 66, 66, 67, 67],
     [68, 68, 69, 69, 70, 70, 97, 97],
     [98, 98, 99, 99, 100, 100, 101, 101],
     [102, 102, 48, 57, 58, 58, 65, 65],
     [66, 66, 67, 67, 68, 68, 69, 69],
     [70, 70, 97, 97, 98, 98, 99, 99],
     [100, 100, 101, 101, 102, 102, 48, 57],
     [58, 58, 65, 65, 66, 66, 67, 67],
     [68, 68, 69, 69, 70, 70, 97, 97],
     [98, 98, 99, 99, 100, 100, 101, 101],
     [102, 102, 48, 57, 58, 58, 65, 65],
     [66, 66, 67, 67, 68, 68, 69, 69],
     [70, 70, 97, 97, 98, 98, 99, 99],
     [100, 100, 101, 101, 102, 102, 58, 58],
     [48, 48, 49, 49, 50, 50, 51, 57],
     [58, 58, 65, 65, 66, 66, 67, 67],
     [68, 68, 69, 69, 70, 70, 97, 97],
     [98, 98, 99, 99, 100, 100, 101, 101],
     [102, 102, 46, 46, 48, 57, 58, 58],
     [65, 65, 66, 66, 67, 67, 68, 68],
     [69, 69, 70, 70, 97, 97, 98, 98],
     [99, 99, 100, 100, 101, 101, 102, 102],
     [48, 48, 49, 49, 50, 50, 51, 57],
     [46, 46, 48, 48, 49, 49, 50, 50],
     [51, 57, 46, 46, 48, 48, 49, 49],
     [50, 50, 51, 57, 93, 93, 48, 57],
     [93, 93, 48, 57, 93, 93, 48, 52],
     [53, 53, 54, 57, 93, 93, 48, 53],
     [93, 93, 46, 46, 48, 57, 46, 46],
     [48, 57, 46, 46, 48, 52, 53, 53],
     [54, 57, 46, 46, 48, 53, 46, 46],
     [48, 57, 46, 46, 48, 57, 46, 46],
     [48, 52, 53, 53, 54, 57, 46, 46],
     [48, 53, 48, 57, 58, 58, 65, 65],
     [66, 66, 67, 67, 68, 68, 69, 69],
     [70, 70, 97, 97, 98, 98, 99, 99],
     [100, 100, 101, 101, 102, 102, 48, 57],
     [58, 58, 65, 65, 66, 66, 67, 67],
     [68, 68, 69, 69, 70, 70, 97, 97],
     [98, 98, 99, 99, 100, 100, 101, 101],
     [102, 102, 58, 58, 48, 57, 58, 58],
     [65, 65, 66, 66, 67, 67, 68, 68],
     [69, 69, 70, 70, 97, 97, 98, 98],
     [99, 99, 100, 100, 101, 101, 102, 102],
     [48, 57, 65, 65, 66, 66, 67, 67],
     [68, 68, 69, 69, 70, 70, 93, 93],
     [97, 97, 98, 98, 99, 99, 100, 100],
     [101, 101, 102, 102, 48, 57, 65, 65],
     [66, 66, 67, 67, 68, 68, 69, 69],
     [70, 70, 93, 93, 97, 97, 98, 98],
     [99, 99, 100, 100, 101, 101, 102, 102],
     [48, 57, 65, 65, 66, 66, 67, 67],
     [68, 68, 69, 69, 70, 70, 93, 93],
     [97, 97, 98, 98, 99, 99, 100, 100],
     [101, 101, 102, 102, 46, 46, 48, 57],
     [58, 58, 65, 65, 66, 66, 67, 67],
     [68, 68, 69, 69, 70, 70, 97, 97],
     [98, 98, 99, 99, 100, 100, 101, 101],
     [102, 102, 46, 46, 48, 57, 58, 58],
     [65, 65, 66, 66, 67, 67, 68, 68],
     [69, 69, 70, 70, 97, 97, 98, 98],
     [99, 99, 100, 100, 101, 101, 102, 102],
     [46, 46, 48, 57, 58, 58, 65, 65],
     [66, 66, 67, 67, 68, 68, 69, 69],
     [70, 70, 97, 97, 98, 98, 99, 99],
     [100, 100, 101, 101, 102, 102, 46, 46],
     [48, 52, 53, 53, 54, 57, 58, 58],
     [65, 65, 66, 66, 67, 67, 68, 68],
     [69, 69, 70, 70, 97, 97, 98, 98],
     [99, 99, 100, 100, 101, 101, 102, 102],
     [46, 46, 48, 53, 54, 57, 58, 58],
     [65, 65, 66, 66, 67, 67, 68, 68],
     [69, 69, 70, 70, 97, 97, 98, 98],
     [99, 99, 100, 100, 101, 101, 102, 102],
     [46, 46, 48, 57, 58, 58, 65, 65],
     [66, 66, 67, 67, 68, 68, 69, 69],
     [70, 70, 97, 97, 98, 98, 99, 99],
     [100, 100, 101, 101, 102, 102, 46, 46],
     [48, 57, 58, 58, 65, 65, 66, 66],
     [67, 67, 68, 68, 69, 69, 70, 70],
     [97, 97, 98, 98, 99, 99, 100, 100],
     [101, 101, 102, 102, 48, 57, 65, 65],
     [66, 66, 67, 67, 68, 68, 69, 69],
     [70, 70, 93, 93, 97, 97, 98, 98],
     [99, 99, 100, 100, 101, 101, 102, 102],
     [48, 57, 58, 58, 65, 65, 66, 66],
     [67, 67, 68, 68, 69, 69, 70, 70],
     [97, 97, 98, 98, 99, 99, 100, 100],
     [101, 101, 102, 102, 48, 48, 49, 49],
     [50, 50, 51, 57, 65, 65, 66, 66],
     [67, 67, 68, 68, 69, 69, 70, 70],
     [93, 93, 97, 97, 98, 98, 99, 99],
     [100, 100, 101, 101, 102, 102, 46, 46],
     [48, 57, 58, 58, 65, 65, 66, 66],
     [67, 67, 68, 68, 69, 69, 70, 70],
     [93, 93, 97, 97, 98, 98, 99, 99],
     [100, 100, 101, 101, 102, 102, 48, 57],
     [58, 58, 65, 65, 66, 66, 67, 67],
     [68, 68, 69, 69, 70, 70, 93, 93],
     [97, 97, 98, 98, 99, 99, 100, 100],
     [101, 101, 102, 102, 48, 57, 58, 58],
     [65, 65, 66, 66, 67, 67, 68, 68],
     [69, 69, 70, 70, 93, 93, 97, 97],
     [98, 98, 99, 99, 100, 100, 101, 101],
     [102, 102, 58, 58, 93, 93, 48, 57],
     [65, 65, 66, 66, 67, 67, 68, 68],
     [69, 69, 70, 70, 97, 97, 98, 98],
     [99, 99, 100, 100, 101, 101, 102, 102],
     [46, 46, 48, 57, 58, 58, 65, 65],
     [66, 66, 67, 67, 68, 68, 69, 69],
     [70, 70, 93, 93, 97, 97, 98, 98],
     [99, 99, 100, 100, 101, 101, 102, 102],
     [46, 46, 48, 57, 58, 58, 65, 65],
     [66, 66, 67, 67, 68, 68, 69, 69],
     [70, 70, 93, 93, 97, 97, 98, 98],
     [99, 99, 100, 100, 101, 101, 102, 102],
     [46, 46, 48, 57, 58, 58, 65, 65],
     [66, 66, 67, 67, 68, 68, 69, 69],
     [70, 70, 93, 93, 97, 97, 98, 98],
     [99, 99, 100, 100, 101, 101, 102, 102],
     [46, 46, 48, 52, 53, 53, 54, 57]]"

definition sup_cond_keys_3 :: "int list list" where
  "sup_cond_keys_3 =
    [[58, 58, 65, 65, 66, 66, 67, 67],
     [68, 68, 69, 69, 70, 70, 93, 93],
     [97, 97, 98, 98, 99, 99, 100, 100],
     [101, 101, 102, 102, 46, 46, 48, 53],
     [54, 57, 58, 58, 65, 65, 66, 66],
     [67, 67, 68, 68, 69, 69, 70, 70],
     [93, 93, 97, 97, 98, 98, 99, 99],
     [100, 100, 101, 101, 102, 102, 46, 46],
     [48, 57, 58, 58, 65, 65, 66, 66],
     [67, 67, 68, 68, 69, 69, 70, 70],
     [93, 93, 97, 97, 98, 98, 99, 99],
     [100, 100, 101, 101, 102, 102, 46, 46],
     [48, 57, 58, 58, 65, 65, 66, 66],
     [67, 67, 68, 68, 69, 69, 70, 70],
     [93, 93, 97, 97, 98, 98, 99, 99],
     [100, 100, 101, 101, 102, 102, 48, 57],
     [58, 58, 65, 65, 66, 66, 67, 67],
     [68, 68, 69, 69, 70, 70, 93, 93],
     [97, 97, 98, 98, 99, 99, 100, 100],
     [101, 101, 102, 102, 48, 48, 49, 49],
     [50, 50, 51, 57, 65, 65, 66, 66],
     [67, 67, 68, 68, 69, 69, 70, 70],
     [93, 93, 97, 97, 98, 98, 99, 99],
     [100, 100, 101, 101, 102, 102, 46, 46],
     [48, 57, 58, 58, 65, 65, 66, 66],
     [67, 67, 68, 68, 69, 69, 70, 70],
     [93, 93, 97, 97, 98, 98, 99, 99],
     [100, 100, 101, 101, 102, 102, 48, 57],
     [58, 58, 65, 65, 66, 66, 67, 67],
     [68, 68, 69, 69, 70, 70, 93, 93],
     [97, 97, 98, 98, 99, 99, 100, 100],
     [101, 101, 102, 102, 48, 57, 58, 58],
     [65, 65, 66, 66, 67, 67, 68, 68],
     [69, 69, 70, 70, 93, 93, 97, 97],
     [98, 98, 99, 99, 100, 100, 101, 101],
     [102, 102, 58, 58, 93, 93, 48, 48],
     [49, 49, 50, 50, 51, 57, 65, 65],
     [66, 66, 67, 67, 68, 68, 69, 69],
     [70, 70, 97, 97, 98, 98, 99, 99],
     [100, 100, 101, 101, 102, 102, 46, 46],
     [48, 57, 58, 58, 65, 65, 66, 66],
     [67, 67, 68, 68, 69, 69, 70, 70],
     [93, 93, 97, 97, 98, 98, 99, 99],
     [100, 100, 101, 101, 102, 102, 46, 46],
     [48, 57, 58, 58, 65, 65, 66, 66],
     [67, 67, 68, 68, 69, 69, 70, 70],
     [93, 93, 97, 97, 98, 98, 99, 99],
     [100, 100, 101, 101, 102, 102, 46, 46],
     [48, 57, 58, 58, 65, 65, 66, 66],
     [67, 67, 68, 68, 69, 69, 70, 70],
     [93, 93, 97, 97, 98, 98, 99, 99],
     [100, 100, 101, 101, 102, 102, 46, 46],
     [48, 52, 53, 53, 54, 57, 58, 58],
     [65, 65, 66, 66, 67, 67, 68, 68],
     [69, 69, 70, 70, 93, 93, 97, 97],
     [98, 98, 99, 99, 100, 100, 101, 101],
     [102, 102, 46, 46, 48, 53, 54, 57],
     [58, 58, 65, 65, 66, 66, 67, 67],
     [68, 68, 69, 69, 70, 70, 93, 93],
     [97, 97, 98, 98, 99, 99, 100, 100],
     [101, 101, 102, 102, 46, 46, 48, 57],
     [58, 58, 65, 65, 66, 66, 67, 67],
     [68, 68, 69, 69, 70, 70, 93, 93],
     [97, 97, 98, 98, 99, 99, 100, 100],
     [101, 101, 102, 102, 46, 46, 48, 57],
     [58, 58, 65, 65, 66, 66, 67, 67],
     [68, 68, 69, 69, 70, 70, 93, 93],
     [97, 97, 98, 98, 99, 99, 100, 100],
     [101, 101, 102, 102, 48, 57, 58, 58],
     [65, 65, 66, 66, 67, 67, 68, 68],
     [69, 69, 70, 70, 93, 93, 97, 97],
     [98, 98, 99, 99, 100, 100, 101, 101],
     [102, 102, 48, 48, 49, 49, 50, 50],
     [51, 57, 65, 65, 66, 66, 67, 67],
     [68, 68, 69, 69, 70, 70, 93, 93],
     [97, 97, 98, 98, 99, 99, 100, 100],
     [101, 101, 102, 102, 46, 46, 48, 57],
     [58, 58, 65, 65, 66, 66, 67, 67],
     [68, 68, 69, 69, 70, 70, 93, 93],
     [97, 97, 98, 98, 99, 99, 100, 100],
     [101, 101, 102, 102, 48, 57, 58, 58],
     [65, 65, 66, 66, 67, 67, 68, 68],
     [69, 69, 70, 70, 93, 93, 97, 97],
     [98, 98, 99, 99, 100, 100, 101, 101],
     [102, 102, 48, 57, 58, 58, 65, 65],
     [66, 66, 67, 67, 68, 68, 69, 69],
     [70, 70, 93, 93, 97, 97, 98, 98],
     [99, 99, 100, 100, 101, 101, 102, 102],
     [58, 58, 93, 93, 48, 48, 49, 49],
     [50, 50, 51, 57, 65, 65, 66, 66],
     [67, 67, 68, 68, 69, 69, 70, 70],
     [97, 97, 98, 98, 99, 99, 100, 100],
     [101, 101, 102, 102, 46, 46, 48, 57],
     [58, 58, 65, 65, 66, 66, 67, 67],
     [68, 68, 69, 69, 70, 70, 93, 93],
     [97, 97, 98, 98, 99, 99, 100, 100],
     [101, 101, 102, 102, 46, 46, 48, 57],
     [58, 58, 65, 65, 66, 66, 67, 67],
     [68, 68, 69, 69, 70, 70, 93, 93],
     [97, 97, 98, 98, 99, 99, 100, 100],
     [101, 101, 102, 102, 46, 46, 48, 57],
     [58, 58, 65, 65, 66, 66, 67, 67],
     [68, 68, 69, 69, 70, 70, 93, 93],
     [97, 97, 98, 98, 99, 99, 100, 100],
     [101, 101, 102, 102, 46, 46, 48, 52],
     [53, 53, 54, 57, 58, 58, 65, 65],
     [66, 66, 67, 67, 68, 68, 69, 69],
     [70, 70, 93, 93, 97, 97, 98, 98],
     [99, 99, 100, 100, 101, 101, 102, 102],
     [46, 46, 48, 53, 54, 57, 58, 58],
     [65, 65, 66, 66, 67, 67, 68, 68],
     [69, 69, 70, 70, 93, 93, 97, 97],
     [98, 98, 99, 99, 100, 100, 101, 101],
     [102, 102, 46, 46, 48, 57, 58, 58],
     [65, 65, 66, 66, 67, 67, 68, 68],
     [69, 69, 70, 70, 93, 93, 97, 97],
     [98, 98, 99, 99, 100, 100, 101, 101],
     [102, 102, 46, 46, 48, 57, 58, 58],
     [65, 65, 66, 66, 67, 67, 68, 68],
     [69, 69, 70, 70, 93, 93, 97, 97],
     [98, 98, 99, 99, 100, 100, 101, 101],
     [102, 102, 48, 57, 58, 58, 65, 65],
     [66, 66, 67, 67, 68, 68, 69, 69],
     [70, 70, 93, 93, 97, 97, 98, 98],
     [99, 99, 100, 100, 101, 101, 102, 102],
     [48, 48, 49, 49, 50, 50, 51, 57],
     [65, 65, 66, 66, 67, 67, 68, 68],
     [69, 69, 70, 70, 93, 93, 97, 97],
     [98, 98, 99, 99, 100, 100, 101, 101],
     [102, 102, 46, 46, 48, 57, 58, 58],
     [65, 65, 66, 66, 67, 67, 68, 68],
     [69, 69, 70, 70, 93, 93, 97, 97],
     [98, 98, 99, 99, 100, 100, 101, 101],
     [102, 102, 48, 57, 58, 58, 65, 65],
     [66, 66, 67, 67, 68, 68, 69, 69],
     [70, 70, 93, 93, 97, 97, 98, 98],
     [99, 99, 100, 100, 101, 101, 102, 102],
     [48, 57, 58, 58, 65, 65, 66, 66],
     [67, 67, 68, 68, 69, 69, 70, 70],
     [93, 93, 97, 97, 98, 98, 99, 99],
     [100, 100, 101, 101, 102, 102, 58, 58],
     [93, 93, 48, 48, 49, 49, 50, 50],
     [51, 57, 65, 65, 66, 66, 67, 67],
     [68, 68, 69, 69, 70, 70, 97, 97],
     [98, 98, 99, 99, 100, 100, 101, 101],
     [102, 102, 46, 46, 48, 57, 58, 58],
     [65, 65, 66, 66, 67, 67, 68, 68],
     [69, 69, 70, 70, 93, 93, 97, 97],
     [98, 98, 99, 99, 100, 100, 101, 101],
     [102, 102, 46, 46, 48, 57, 58, 58]]"

definition sup_cond_keys_4 :: "int list list" where
  "sup_cond_keys_4 =
    [[65, 65, 66, 66, 67, 67, 68, 68],
     [69, 69, 70, 70, 93, 93, 97, 97],
     [98, 98, 99, 99, 100, 100, 101, 101],
     [102, 102, 46, 46, 48, 57, 58, 58],
     [65, 65, 66, 66, 67, 67, 68, 68],
     [69, 69, 70, 70, 93, 93, 97, 97],
     [98, 98, 99, 99, 100, 100, 101, 101],
     [102, 102, 46, 46, 48, 52, 53, 53],
     [54, 57, 58, 58, 65, 65, 66, 66],
     [67, 67, 68, 68, 69, 69, 70, 70],
     [93, 93, 97, 97, 98, 98, 99, 99],
     [100, 100, 101, 101, 102, 102, 46, 46],
     [48, 53, 54, 57, 58, 58, 65, 65],
     [66, 66, 67, 67, 68, 68, 69, 69],
     [70, 70, 93, 93, 97, 97, 98, 98],
     [99, 99, 100, 100, 101, 101, 102, 102],
     [46, 46, 48, 57, 58, 58, 65, 65],
     [66, 66, 67, 67, 68, 68, 69, 69],
     [70, 70, 93, 93, 97, 97, 98, 98],
     [99, 99, 100, 100, 101, 101, 102, 102],
     [46, 46, 48, 57, 58, 58, 65, 65],
     [66, 66, 67, 67, 68, 68, 69, 69],
     [70, 70, 93, 93, 97, 97, 98, 98],
     [99, 99, 100, 100, 101, 101, 102, 102],
     [48, 57, 58, 58, 65, 65, 66, 66],
     [67, 67, 68, 68, 69, 69, 70, 70],
     [93, 93, 97, 97, 98, 98, 99, 99],
     [100, 100, 101, 101, 102, 102, 48, 48],
     [49, 49, 50, 50, 51, 57, 65, 65],
     [66, 66, 67, 67, 68, 68, 69, 69],
     [70, 70, 93, 93, 97, 97, 98, 98],
     [99, 99, 100, 100, 101, 101, 102, 102],
     [46, 46, 48, 57, 58, 58, 65, 65],
     [66, 66, 67, 67, 68, 68, 69, 69],
     [70, 70, 93, 93, 97, 97, 98, 98],
     [99, 99, 100, 100, 101, 101, 102, 102],
     [48, 57, 58, 58, 65, 65, 66, 66],
     [67, 67, 68, 68, 69, 69, 70, 70],
     [93, 93, 97, 97, 98, 98, 99, 99],
     [100, 100, 101, 101, 102, 102, 48, 57],
     [58, 58, 65, 65, 66, 66, 67, 67],
     [68, 68, 69, 69, 70, 70, 93, 93],
     [97, 97, 98, 98, 99, 99, 100, 100],
     [101, 101, 102, 102, 58, 58, 93, 93],
     [48, 48, 49, 49, 50, 50, 51, 57],
     [65, 65, 66, 66, 67, 67, 68, 68],
     [69, 69, 70, 70, 97, 97, 98, 98],
     [99, 99, 100, 100, 101, 101, 102, 102],
     [46, 46, 48, 57, 58, 58, 65, 65],
     [66, 66, 67, 67, 68, 68, 69, 69],
     [70, 70, 93, 93, 97, 97, 98, 98],
     [99, 99, 100, 100, 101, 101, 102, 102],
     [46, 46, 48, 57, 58, 58, 65, 65],
     [66, 66, 67, 67, 68, 68, 69, 69],
     [70, 70, 93, 93, 97, 97, 98, 98],
     [99, 99, 100, 100, 101, 101, 102, 102],
     [46, 46, 48, 57, 58, 58, 65, 65],
     [66, 66, 67, 67, 68, 68, 69, 69],
     [70, 70, 93, 93, 97, 97, 98, 98],
     [99, 99, 100, 100, 101, 101, 102, 102],
     [46, 46, 48, 52, 53, 53, 54, 57],
     [58, 58, 65, 65, 66, 66, 67, 67],
     [68, 68, 69, 69, 70, 70, 93, 93],
     [97, 97, 98, 98, 99, 99, 100, 100],
     [101, 101, 102, 102, 46, 46, 48, 53],
     [54, 57, 58, 58, 65, 65, 66, 66],
     [67, 67, 68, 68, 69, 69, 70, 70],
     [93, 93, 97, 97, 98, 98, 99, 99],
     [100, 100, 101, 101, 102, 102, 46, 46],
     [48, 57, 58, 58, 65, 65, 66, 66],
     [67, 67, 68, 68, 69, 69, 70, 70],
     [93, 93, 97, 97, 98, 98, 99, 99],
     [100, 100, 101, 101, 102, 102, 46, 46],
     [48, 57, 58, 58, 65, 65, 66, 66],
     [67, 67, 68, 68, 69, 69, 70, 70],
     [93, 93, 97, 97, 98, 98, 99, 99],
     [100, 100, 101, 101, 102, 102, 48, 57],
     [58, 58, 65, 65, 66, 66, 67, 67],
     [68, 68, 69, 69, 70, 70, 93, 93],
     [97, 97, 98, 98, 99, 99, 100, 100],
     [101, 101, 102, 102, 58, 58, 48, 48],
     [49, 49, 50, 50, 51, 57, 65, 65],
     [66, 66, 67, 67, 68, 68, 69, 69],
     [70, 70, 93, 93, 97, 97, 98, 98],
     [99, 99, 100, 100, 101, 101, 102, 102],
     [46, 46, 48, 57, 58, 58, 65, 65],
     [66, 66, 67, 67, 68, 68, 69, 69],
     [70, 70, 93, 93, 97, 97, 98, 98],
     [99, 99, 100, 100, 101, 101, 102, 102],
     [48, 57, 58, 58, 65, 65, 66, 66],
     [67, 67, 68, 68, 69, 69, 70, 70],
     [93, 93, 97, 97, 98, 98, 99, 99],
     [100, 100, 101, 101, 102, 102, 48, 57],
     [58, 58, 65, 65, 66, 66, 67, 67],
     [68, 68, 69, 69, 70, 70, 93, 93],
     [97, 97, 98, 98, 99, 99, 100, 100],
     [101, 101, 102, 102, 58, 58, 93, 93],
     [48, 48, 49, 49, 50, 50, 51, 57],
     [65, 65, 66, 66, 67, 67, 68, 68],
     [69, 69, 70, 70, 97, 97, 98, 98],
     [99, 99, 100, 100, 101, 101, 102, 102],
     [46, 46, 48, 57, 58, 58, 65, 65],
     [66, 66, 67, 67, 68, 68, 69, 69],
     [70, 70, 93, 93, 97, 97, 98, 98],
     [99, 99, 100, 100, 101, 101, 102, 102],
     [46, 46, 48, 57, 58, 58, 65, 65],
     [66, 66, 67, 67, 68, 68, 69, 69],
     [70, 70, 93, 93, 97, 97, 98, 98],
     [99, 99, 100, 100, 101, 101, 102, 102],
     [46, 46, 48, 57, 58, 58, 65, 65],
     [66, 66, 67, 67, 68, 68, 69, 69],
     [70, 70, 93, 93, 97, 97, 98, 98],
     [99, 99, 100, 100, 101, 101, 102, 102],
     [46, 46, 48, 52, 53, 53, 54, 57],
     [58, 58, 65, 65, 66, 66, 67, 67],
     [68, 68, 69, 69, 70, 70, 93, 93],
     [97, 97, 98, 98, 99, 99, 100, 100],
     [101, 101, 102, 102, 46, 46, 48, 53],
     [54, 57, 58, 58, 65, 65, 66, 66],
     [67, 67, 68, 68, 69, 69, 70, 70],
     [93, 93, 97, 97, 98, 98, 99, 99],
     [100, 100, 101, 101, 102, 102, 46, 46],
     [48, 57, 58, 58, 65, 65, 66, 66],
     [67, 67, 68, 68, 69, 69, 70, 70],
     [93, 93, 97, 97, 98, 98, 99, 99],
     [100, 100, 101, 101, 102, 102, 46, 46],
     [48, 57, 58, 58, 65, 65, 66, 66],
     [67, 67, 68, 68, 69, 69, 70, 70],
     [93, 93, 97, 97, 98, 98, 99, 99],
     [100, 100, 101, 101, 102, 102, 48, 57],
     [58, 58, 65, 65, 66, 66, 67, 67],
     [68, 68, 69, 69, 70, 70, 93, 93],
     [97, 97, 98, 98, 99, 99, 100, 100],
     [101, 101, 102, 102, 33, 33, 36, 36],
     [37, 37, 38, 38, 39, 39, 40, 40],
     [41, 41, 42, 42, 43, 43, 44, 44],
     [45, 45, 46, 46, 47, 47, 48, 57],
     [58, 58, 59, 59, 61, 61, 62, 62],
     [63, 63, 64, 64, 65, 90, 95, 95],
     [97, 122, 126, 126, 48, 57, 65, 65],
     [66, 66, 67, 67, 68, 68, 69, 69],
     [70, 70, 97, 97, 98, 98, 99, 99],
     [100, 100, 101, 101, 102, 102, 48, 57],
     [65, 65, 66, 66, 67, 67, 68, 68],
     [69, 69, 70, 70, 97, 97, 98, 98],
     [99, 99, 100, 100, 101, 101, 102, 102],
     [48, 57, 62, 62, 63, 63, 48, 57],
     [62, 62, 63, 63, 48, 57, 62, 62],
     [63, 63, 48, 57, 62, 62, 63, 63],
     [48, 52, 53, 53, 54, 57, 62, 62]]"

definition sup_cond_keys_5 :: "int list list" where
  "sup_cond_keys_5 =
    [[63, 63, 48, 52, 53, 53, 54, 57],
     [62, 62, 63, 63, 48, 50, 51, 51],
     [52, 57, 62, 62, 63, 63, 48, 53],
     [62, 62, 63, 63, 48, 48, 49, 49],
     [50, 50, 51, 57, 65, 90, 97, 122],
     [45, 45, 46, 46, 48, 57, 65, 90],
     [95, 95, 97, 122, 48, 48, 49, 49],
     [50, 50, 51, 57, 65, 90, 97, 122],
     [45, 45, 46, 46, 48, 57, 65, 90],
     [95, 95, 97, 122, 48, 48, 49, 49],
     [50, 50, 51, 57, 65, 90, 97, 122],
     [45, 45, 46, 46, 48, 57, 58, 58],
     [62, 62, 63, 63, 65, 90, 95, 95],
     [97, 122, 45, 45, 46, 46, 48, 57],
     [58, 58, 62, 62, 63, 63, 65, 90],
     [95, 95, 97, 122, 45, 45, 46, 46],
     [48, 57, 58, 58, 62, 62, 63, 63],
     [65, 90, 95, 95, 97, 122, 45, 45],
     [46, 46, 48, 52, 53, 53, 54, 57],
     [58, 58, 62, 62, 63, 63, 65, 90],
     [95, 95, 97, 122, 45, 45, 46, 46],
     [48, 53, 54, 57, 58, 58, 62, 62],
     [63, 63, 65, 90, 95, 95, 97, 122],
     [45, 45, 46, 46, 48, 57, 65, 90],
     [95, 95, 97, 122, 45, 45, 46, 46],
     [48, 57, 65, 90, 95, 95, 97, 122],
     [45, 45, 46, 46, 48, 52, 53, 53],
     [54, 57, 65, 90, 95, 95, 97, 122],
     [45, 45, 46, 46, 48, 53, 54, 57],
     [65, 90, 95, 95, 97, 122, 45, 45],
     [46, 46, 48, 57, 65, 90, 95, 95],
     [97, 122, 45, 45, 46, 46, 48, 57],
     [65, 90, 95, 95, 97, 122, 45, 45],
     [46, 46, 48, 52, 53, 53, 54, 57],
     [65, 90, 95, 95, 97, 122, 45, 45],
     [46, 46, 48, 53, 54, 57, 65, 90],
     [95, 95, 97, 122, 45, 45, 46, 46],
     [48, 57, 65, 90, 95, 95, 97, 122],
     [45, 45, 46, 46, 48, 57, 65, 90],
     [95, 95, 97, 122, 45, 45, 46, 46],
     [48, 52, 53, 53, 54, 57, 65, 90],
     [95, 95, 97, 122, 45, 45, 46, 46],
     [48, 53, 54, 57, 65, 90, 95, 95],
     [97, 122, 48, 57, 58, 58, 65, 65],
     [66, 66, 67, 67, 68, 68, 69, 69],
     [70, 70, 97, 97, 98, 98, 99, 99],
     [100, 100, 101, 101, 102, 102, 48, 57],
     [58, 58, 65, 65, 66, 66, 67, 67],
     [68, 68, 69, 69, 70, 70, 97, 97],
     [98, 98, 99, 99, 100, 100, 101, 101],
     [102, 102, 48, 57, 58, 58, 65, 65],
     [66, 66, 67, 67, 68, 68, 69, 69],
     [70, 70, 97, 97, 98, 98, 99, 99],
     [100, 100, 101, 101, 102, 102, 48, 57],
     [58, 58, 65, 65, 66, 66, 67, 67],
     [68, 68, 69, 69, 70, 70, 97, 97],
     [98, 98, 99, 99, 100, 100, 101, 101],
     [102, 102, 58, 58, 48, 57, 58, 58],
     [65, 65, 66, 66, 67, 67, 68, 68],
     [69, 69, 70, 70, 97, 97, 98, 98],
     [99, 99, 100, 100, 101, 101, 102, 102],
     [48, 57, 58, 58, 65, 65, 66, 66],
     [67, 67, 68, 68, 69, 69, 70, 70],
     [97, 97, 98, 98, 99, 99, 100, 100],
     [101, 101, 102, 102, 48, 57, 58, 58],
     [65, 65, 66, 66, 67, 67, 68, 68],
     [69, 69, 70, 70, 97, 97, 98, 98],
     [99, 99, 100, 100, 101, 101, 102, 102],
     [48, 57, 58, 58, 65, 65, 66, 66],
     [67, 67, 68, 68, 69, 69, 70, 70],
     [97, 97, 98, 98, 99, 99, 100, 100],
     [101, 101, 102, 102, 58, 58, 48, 57],
     [58, 58, 65, 65, 66, 66, 67, 67],
     [68, 68, 69, 69, 70, 70, 97, 97],
     [98, 98, 99, 99, 100, 100, 101, 101],
     [102, 102, 48, 57, 58, 58, 65, 65],
     [66, 66, 67, 67, 68, 68, 69, 69],
     [70, 70, 97, 97, 98, 98, 99, 99],
     [100, 100, 101, 101, 102, 102, 48, 57],
     [58, 58, 65, 65, 66, 66, 67, 67],
     [68, 68, 69, 69, 70, 70, 97, 97],
     [98, 98, 99, 99, 100, 100, 101, 101],
     [102, 102, 48, 57, 58, 58, 65, 65],
     [66, 66, 67, 67, 68, 68, 69, 69],
     [70, 70, 97, 97, 98, 98, 99, 99],
     [100, 100, 101, 101, 102, 102, 58, 58],
     [48, 57, 58, 58, 65, 65, 66, 66],
     [67, 67, 68, 68, 69, 69, 70, 70],
     [97, 97, 98, 98, 99, 99, 100, 100],
     [101, 101, 102, 102, 48, 57, 58, 58],
     [65, 65, 66, 66, 67, 67, 68, 68],
     [69, 69, 70, 70, 97, 97, 98, 98],
     [99, 99, 100, 100, 101, 101, 102, 102],
     [48, 57, 58, 58, 65, 65, 66, 66],
     [67, 67, 68, 68, 69, 69, 70, 70],
     [97, 97, 98, 98, 99, 99, 100, 100],
     [101, 101, 102, 102, 48, 57, 58, 58],
     [65, 65, 66, 66, 67, 67, 68, 68],
     [69, 69, 70, 70, 97, 97, 98, 98],
     [99, 99, 100, 100, 101, 101, 102, 102],
     [58, 58, 48, 57, 58, 58, 65, 65],
     [66, 66, 67, 67, 68, 68, 69, 69],
     [70, 70, 97, 97, 98, 98, 99, 99],
     [100, 100, 101, 101, 102, 102, 48, 57],
     [58, 58, 65, 65, 66, 66, 67, 67],
     [68, 68, 69, 69, 70, 70, 97, 97],
     [98, 98, 99, 99, 100, 100, 101, 101],
     [102, 102, 48, 57, 58, 58, 65, 65],
     [66, 66, 67, 67, 68, 68, 69, 69],
     [70, 70, 97, 97, 98, 98, 99, 99],
     [100, 100, 101, 101, 102, 102, 48, 57],
     [58, 58, 65, 65, 66, 66, 67, 67],
     [68, 68, 69, 69, 70, 70, 97, 97],
     [98, 98, 99, 99, 100, 100, 101, 101],
     [102, 102, 58, 58, 48, 57, 58, 58],
     [65, 65, 66, 66, 67, 67, 68, 68],
     [69, 69, 70, 70, 97, 97, 98, 98],
     [99, 99, 100, 100, 101, 101, 102, 102],
     [48, 57, 58, 58, 65, 65, 66, 66],
     [67, 67, 68, 68, 69, 69, 70, 70],
     [97, 97, 98, 98, 99, 99, 100, 100],
     [101, 101, 102, 102, 48, 57, 58, 58],
     [65, 65, 66, 66, 67, 67, 68, 68],
     [69, 69, 70, 70, 97, 97, 98, 98],
     [99, 99, 100, 100, 101, 101, 102, 102],
     [48, 57, 58, 58, 65, 65, 66, 66],
     [67, 67, 68, 68, 69, 69, 70, 70],
     [97, 97, 98, 98, 99, 99, 100, 100],
     [101, 101, 102, 102, 58, 58, 48, 48],
     [49, 49, 50, 50, 51, 57, 58, 58],
     [65, 65, 66, 66, 67, 67, 68, 68],
     [69, 69, 70, 70, 97, 97, 98, 98],
     [99, 99, 100, 100, 101, 101, 102, 102],
     [46, 46, 48, 57, 58, 58, 65, 65],
     [66, 66, 67, 67, 68, 68, 69, 69],
     [70, 70, 97, 97, 98, 98, 99, 99],
     [100, 100, 101, 101, 102, 102, 48, 48],
     [49, 49, 50, 50, 51, 57, 46, 46],
     [48, 48, 49, 49, 50, 50, 51, 57],
     [46, 46, 48, 48, 49, 49, 50, 50],
     [51, 57, 93, 93, 58, 58, 62, 62],
     [63, 63, 48, 57, 93, 93, 48, 57],
     [93, 93, 48, 52, 53, 53, 54, 57],
     [93, 93, 48, 53, 93, 93, 46, 46],
     [48, 57, 46, 46, 48, 57, 46, 46],
     [48, 52, 53, 53, 54, 57, 46, 46],
     [48, 53, 46, 46, 48, 57, 46, 46],
     [48, 57, 46, 46, 48, 52, 53, 53],
     [54, 57, 46, 46, 48, 53, 48, 57],
     [58, 58, 65, 65, 66, 66, 67, 67]]"

definition sup_cond_keys_6 :: "int list list" where
  "sup_cond_keys_6 =
    [[68, 68, 69, 69, 70, 70, 97, 97],
     [98, 98, 99, 99, 100, 100, 101, 101],
     [102, 102, 48, 57, 58, 58, 65, 65],
     [66, 66, 67, 67, 68, 68, 69, 69],
     [70, 70, 97, 97, 98, 98, 99, 99],
     [100, 100, 101, 101, 102, 102, 58, 58],
     [48, 57, 58, 58, 65, 65, 66, 66],
     [67, 67, 68, 68, 69, 69, 70, 70],
     [97, 97, 98, 98, 99, 99, 100, 100],
     [101, 101, 102, 102, 48, 57, 65, 65],
     [66, 66, 67, 67, 68, 68, 69, 69],
     [70, 70, 93, 93, 97, 97, 98, 98],
     [99, 99, 100, 100, 101, 101, 102, 102],
     [48, 57, 65, 65, 66, 66, 67, 67],
     [68, 68, 69, 69, 70, 70, 93, 93],
     [97, 97, 98, 98, 99, 99, 100, 100],
     [101, 101, 102, 102, 48, 57, 65, 65],
     [66, 66, 67, 67, 68, 68, 69, 69],
     [70, 70, 93, 93, 97, 97, 98, 98],
     [99, 99, 100, 100, 101, 101, 102, 102],
     [46, 46, 48, 57, 58, 58, 65, 65],
     [66, 66, 67, 67, 68, 68, 69, 69],
     [70, 70, 97, 97, 98, 98, 99, 99],
     [100, 100, 101, 101, 102, 102, 46, 46],
     [48, 57, 58, 58, 65, 65, 66, 66],
     [67, 67, 68, 68, 69, 69, 70, 70],
     [97, 97, 98, 98, 99, 99, 100, 100],
     [101, 101, 102, 102, 46, 46, 48, 57],
     [58, 58, 65, 65, 66, 66, 67, 67],
     [68, 68, 69, 69, 70, 70, 97, 97],
     [98, 98, 99, 99, 100, 100, 101, 101],
     [102, 102, 46, 46, 48, 52, 53, 53],
     [54, 57, 58, 58, 65, 65, 66, 66],
     [67, 67, 68, 68, 69, 69, 70, 70],
     [97, 97, 98, 98, 99, 99, 100, 100],
     [101, 101, 102, 102, 46, 46, 48, 53],
     [54, 57, 58, 58, 65, 65, 66, 66],
     [67, 67, 68, 68, 69, 69, 70, 70],
     [97, 97, 98, 98, 99, 99, 100, 100],
     [101, 101, 102, 102, 46, 46, 48, 57],
     [58, 58, 65, 65, 66, 66, 67, 67],
     [68, 68, 69, 69, 70, 70, 97, 97],
     [98, 98, 99, 99, 100, 100, 101, 101],
     [102, 102, 46, 46, 48, 57, 58, 58],
     [65, 65, 66, 66, 67, 67, 68, 68],
     [69, 69, 70, 70, 97, 97, 98, 98],
     [99, 99, 100, 100, 101, 101, 102, 102],
     [48, 57, 65, 65, 66, 66, 67, 67],
     [68, 68, 69, 69, 70, 70, 93, 93],
     [97, 97, 98, 98, 99, 99, 100, 100],
     [101, 101, 102, 102, 48, 57, 58, 58],
     [65, 65, 66, 66, 67, 67, 68, 68],
     [69, 69, 70, 70, 97, 97, 98, 98],
     [99, 99, 100, 100, 101, 101, 102, 102],
     [48, 48, 49, 49, 50, 50, 51, 57],
     [65, 65, 66, 66, 67, 67, 68, 68],
     [69, 69, 70, 70, 93, 93, 97, 97],
     [98, 98, 99, 99, 100, 100, 101, 101],
     [102, 102, 46, 46, 48, 57, 58, 58],
     [65, 65, 66, 66, 67, 67, 68, 68],
     [69, 69, 70, 70, 93, 93, 97, 97],
     [98, 98, 99, 99, 100, 100, 101, 101],
     [102, 102, 48, 57, 58, 58, 65, 65],
     [66, 66, 67, 67, 68, 68, 69, 69],
     [70, 70, 93, 93, 97, 97, 98, 98],
     [99, 99, 100, 100, 101, 101, 102, 102],
     [48, 57, 58, 58, 65, 65, 66, 66],
     [67, 67, 68, 68, 69, 69, 70, 70],
     [93, 93, 97, 97, 98, 98, 99, 99],
     [100, 100, 101, 101, 102, 102, 58, 58],
     [93, 93, 48, 57, 65, 65, 66, 66],
     [67, 67, 68, 68, 69, 69, 70, 70],
     [97, 97, 98, 98, 99, 99, 100, 100],
     [101, 101, 102, 102, 46, 46, 48, 57],
     [58, 58, 65, 65, 66, 66, 67, 67],
     [68, 68, 69, 69, 70, 70, 93, 93],
     [97, 97, 98, 98, 99, 99, 100, 100],
     [101, 101, 102, 102, 46, 46, 48, 57],
     [58, 58, 65, 65, 66, 66, 67, 67],
     [68, 68, 69, 69, 70, 70, 93, 93],
     [97, 97, 98, 98, 99, 99, 100, 100],
     [101, 101, 102, 102, 46, 46, 48, 57],
     [58, 58, 65, 65, 66, 66, 67, 67],
     [68, 68, 69, 69, 70, 70, 93, 93],
     [97, 97, 98, 98, 99, 99, 100, 100],
     [101, 101, 102, 102, 46, 46, 48, 52],
     [53, 53, 54, 57, 58, 58, 65, 65],
     [66, 66, 67, 67, 68, 68, 69, 69],
     [70, 70, 93, 93, 97, 97, 98, 98],
     [99, 99, 100, 100, 101, 101, 102, 102],
     [46, 46, 48, 53, 54, 57, 58, 58],
     [65, 65, 66, 66, 67, 67, 68, 68],
     [69, 69, 70, 70, 93, 93, 97, 97],
     [98, 98, 99, 99, 100, 100, 101, 101],
     [102, 102, 46, 46, 48, 57, 58, 58],
     [65, 65, 66, 66, 67, 67, 68, 68],
     [69, 69, 70, 70, 93, 93, 97, 97],
     [98, 98, 99, 99, 100, 100, 101, 101],
     [102, 102, 46, 46, 48, 57, 58, 58],
     [65, 65, 66, 66, 67, 67, 68, 68],
     [69, 69, 70, 70, 93, 93, 97, 97],
     [98, 98, 99, 99, 100, 100, 101, 101],
     [102, 102, 48, 57, 58, 58, 65, 65],
     [66, 66, 67, 67, 68, 68, 69, 69],
     [70, 70, 93, 93, 97, 97, 98, 98],
     [99, 99, 100, 100, 101, 101, 102, 102],
     [48, 48, 49, 49, 50, 50, 51, 57],
     [65, 65, 66, 66, 67, 67, 68, 68],
     [69, 69, 70, 70, 93, 93, 97, 97],
     [98, 98, 99, 99, 100, 100, 101, 101],
     [102, 102, 46, 46, 48, 57, 58, 58],
     [65, 65, 66, 66, 67, 67, 68, 68],
     [69, 69, 70, 70, 93, 93, 97, 97],
     [98, 98, 99, 99, 100, 100, 101, 101],
     [102, 102, 48, 57, 58, 58, 65, 65],
     [66, 66, 67, 67, 68, 68, 69, 69],
     [70, 70, 93, 93, 97, 97, 98, 98],
     [99, 99, 100, 100, 101, 101, 102, 102],
     [48, 57, 58, 58, 65, 65, 66, 66],
     [67, 67, 68, 68, 69, 69, 70, 70],
     [93, 93, 97, 97, 98, 98, 99, 99],
     [100, 100, 101, 101, 102, 102, 58, 58],
     [93, 93, 48, 48, 49, 49, 50, 50],
     [51, 57, 65, 65, 66, 66, 67, 67],
     [68, 68, 69, 69, 70, 70, 97, 97],
     [98, 98, 99, 99, 100, 100, 101, 101],
     [102, 102, 46, 46, 48, 57, 58, 58],
     [65, 65, 66, 66, 67, 67, 68, 68],
     [69, 69, 70, 70, 93, 93, 97, 97],
     [98, 98, 99, 99, 100, 100, 101, 101],
     [102, 102, 46, 46, 48, 57, 58, 58],
     [65, 65, 66, 66, 67, 67, 68, 68],
     [69, 69, 70, 70, 93, 93, 97, 97],
     [98, 98, 99, 99, 100, 100, 101, 101],
     [102, 102, 46, 46, 48, 57, 58, 58],
     [65, 65, 66, 66, 67, 67, 68, 68],
     [69, 69, 70, 70, 93, 93, 97, 97],
     [98, 98, 99, 99, 100, 100, 101, 101],
     [102, 102, 46, 46, 48, 52, 53, 53],
     [54, 57, 58, 58, 65, 65, 66, 66],
     [67, 67, 68, 68, 69, 69, 70, 70],
     [93, 93, 97, 97, 98, 98, 99, 99],
     [100, 100, 101, 101, 102, 102, 46, 46],
     [48, 53, 54, 57, 58, 58, 65, 65],
     [66, 66, 67, 67, 68, 68, 69, 69],
     [70, 70, 93, 93, 97, 97, 98, 98],
     [99, 99, 100, 100, 101, 101, 102, 102],
     [46, 46, 48, 57, 58, 58, 65, 65],
     [66, 66, 67, 67, 68, 68, 69, 69],
     [70, 70, 93, 93, 97, 97, 98, 98]]"

definition sup_cond_keys_7 :: "int list list" where
  "sup_cond_keys_7 =
    [[99, 99, 100, 100, 101, 101, 102, 102],
     [46, 46, 48, 57, 58, 58, 65, 65],
     [66, 66, 67, 67, 68, 68, 69, 69],
     [70, 70, 93, 93, 97, 97, 98, 98],
     [99, 99, 100, 100, 101, 101, 102, 102],
     [48, 57, 58, 58, 65, 65, 66, 66],
     [67, 67, 68, 68, 69, 69, 70, 70],
     [93, 93, 97, 97, 98, 98, 99, 99],
     [100, 100, 101, 101, 102, 102, 48, 48],
     [49, 49, 50, 50, 51, 57, 65, 65],
     [66, 66, 67, 67, 68, 68, 69, 69],
     [70, 70, 93, 93, 97, 97, 98, 98],
     [99, 99, 100, 100, 101, 101, 102, 102],
     [46, 46, 48, 57, 58, 58, 65, 65],
     [66, 66, 67, 67, 68, 68, 69, 69],
     [70, 70, 93, 93, 97, 97, 98, 98],
     [99, 99, 100, 100, 101, 101, 102, 102],
     [48, 57, 58, 58, 65, 65, 66, 66],
     [67, 67, 68, 68, 69, 69, 70, 70],
     [93, 93, 97, 97, 98, 98, 99, 99],
     [100, 100, 101, 101, 102, 102, 48, 57],
     [58, 58, 65, 65, 66, 66, 67, 67],
     [68, 68, 69, 69, 70, 70, 93, 93],
     [97, 97, 98, 98, 99, 99, 100, 100],
     [101, 101, 102, 102, 58, 58, 93, 93],
     [48, 48, 49, 49, 50, 50, 51, 57],
     [65, 65, 66, 66, 67, 67, 68, 68],
     [69, 69, 70, 70, 97, 97, 98, 98],
     [99, 99, 100, 100, 101, 101, 102, 102],
     [46, 46, 48, 57, 58, 58, 65, 65],
     [66, 66, 67, 67, 68, 68, 69, 69],
     [70, 70, 93, 93, 97, 97, 98, 98],
     [99, 99, 100, 100, 101, 101, 102, 102],
     [46, 46, 48, 57, 58, 58, 65, 65],
     [66, 66, 67, 67, 68, 68, 69, 69],
     [70, 70, 93, 93, 97, 97, 98, 98],
     [99, 99, 100, 100, 101, 101, 102, 102],
     [46, 46, 48, 57, 58, 58, 65, 65],
     [66, 66, 67, 67, 68, 68, 69, 69],
     [70, 70, 93, 93, 97, 97, 98, 98],
     [99, 99, 100, 100, 101, 101, 102, 102],
     [46, 46, 48, 52, 53, 53, 54, 57],
     [58, 58, 65, 65, 66, 66, 67, 67],
     [68, 68, 69, 69, 70, 70, 93, 93],
     [97, 97, 98, 98, 99, 99, 100, 100],
     [101, 101, 102, 102, 46, 46, 48, 53],
     [54, 57, 58, 58, 65, 65, 66, 66],
     [67, 67, 68, 68, 69, 69, 70, 70],
     [93, 93, 97, 97, 98, 98, 99, 99],
     [100, 100, 101, 101, 102, 102, 46, 46],
     [48, 57, 58, 58, 65, 65, 66, 66],
     [67, 67, 68, 68, 69, 69, 70, 70],
     [93, 93, 97, 97, 98, 98, 99, 99],
     [100, 100, 101, 101, 102, 102, 46, 46],
     [48, 57, 58, 58, 65, 65, 66, 66],
     [67, 67, 68, 68, 69, 69, 70, 70],
     [93, 93, 97, 97, 98, 98, 99, 99],
     [100, 100, 101, 101, 102, 102, 48, 57],
     [58, 58, 65, 65, 66, 66, 67, 67],
     [68, 68, 69, 69, 70, 70, 93, 93],
     [97, 97, 98, 98, 99, 99, 100, 100],
     [101, 101, 102, 102, 48, 48, 49, 49],
     [50, 50, 51, 57, 65, 65, 66, 66],
     [67, 67, 68, 68, 69, 69, 70, 70],
     [93, 93, 97, 97, 98, 98, 99, 99],
     [100, 100, 101, 101, 102, 102, 46, 46],
     [48, 57, 58, 58, 65, 65, 66, 66],
     [67, 67, 68, 68, 69, 69, 70, 70],
     [93, 93, 97, 97, 98, 98, 99, 99],
     [100, 100, 101, 101, 102, 102, 48, 57],
     [58, 58, 65, 65, 66, 66, 67, 67],
     [68, 68, 69, 69, 70, 70, 93, 93],
     [97, 97, 98, 98, 99, 99, 100, 100],
     [101, 101, 102, 102, 48, 57, 58, 58],
     [65, 65, 66, 66, 67, 67, 68, 68],
     [69, 69, 70, 70, 93, 93, 97, 97],
     [98, 98, 99, 99, 100, 100, 101, 101],
     [102, 102, 58, 58, 93, 93, 48, 48],
     [49, 49, 50, 50, 51, 57, 65, 65],
     [66, 66, 67, 67, 68, 68, 69, 69],
     [70, 70, 97, 97, 98, 98, 99, 99],
     [100, 100, 101, 101, 102, 102, 46, 46],
     [48, 57, 58, 58, 65, 65, 66, 66],
     [67, 67, 68, 68, 69, 69, 70, 70],
     [93, 93, 97, 97, 98, 98, 99, 99],
     [100, 100, 101, 101, 102, 102, 46, 46],
     [48, 57, 58, 58, 65, 65, 66, 66],
     [67, 67, 68, 68, 69, 69, 70, 70],
     [93, 93, 97, 97, 98, 98, 99, 99],
     [100, 100, 101, 101, 102, 102, 46, 46],
     [48, 57, 58, 58, 65, 65, 66, 66],
     [67, 67, 68, 68, 69, 69, 70, 70],
     [93, 93, 97, 97, 98, 98, 99, 99],
     [100, 100, 101, 101, 102, 102, 46, 46],
     [48, 52, 53, 53, 54, 57, 58, 58],
     [65, 65, 66, 66, 67, 67, 68, 68],
     [69, 69, 70, 70, 93, 93, 97, 97],
     [98, 98, 99, 99, 100, 100, 101, 101],
     [102, 102, 46, 46, 48, 53, 54, 57],
     [58, 58, 65, 65, 66, 66, 67, 67],
     [68, 68, 69, 69, 70, 70, 93, 93],
     [97, 97, 98, 98, 99, 99, 100, 100],
     [101, 101, 102, 102, 46, 46, 48, 57],
     [58, 58, 65, 65, 66, 66, 67, 67],
     [68, 68, 69, 69, 70, 70, 93, 93],
     [97, 97, 98, 98, 99, 99, 100, 100],
     [101, 101, 102, 102, 46, 46, 48, 57],
     [58, 58, 65, 65, 66, 66, 67, 67],
     [68, 68, 69, 69, 70, 70, 93, 93],
     [97, 97, 98, 98, 99, 99, 100, 100],
     [101, 101, 102, 102, 48, 57, 58, 58],
     [65, 65, 66, 66, 67, 67, 68, 68],
     [69, 69, 70, 70, 93, 93, 97, 97],
     [98, 98, 99, 99, 100, 100, 101, 101],
     [102, 102, 48, 48, 49, 49, 50, 50],
     [51, 57, 65, 65, 66, 66, 67, 67],
     [68, 68, 69, 69, 70, 70, 93, 93],
     [97, 97, 98, 98, 99, 99, 100, 100],
     [101, 101, 102, 102, 46, 46, 48, 57],
     [58, 58, 65, 65, 66, 66, 67, 67],
     [68, 68, 69, 69, 70, 70, 93, 93],
     [97, 97, 98, 98, 99, 99, 100, 100],
     [101, 101, 102, 102, 48, 57, 58, 58],
     [65, 65, 66, 66, 67, 67, 68, 68],
     [69, 69, 70, 70, 93, 93, 97, 97],
     [98, 98, 99, 99, 100, 100, 101, 101],
     [102, 102, 48, 57, 58, 58, 65, 65],
     [66, 66, 67, 67, 68, 68, 69, 69],
     [70, 70, 93, 93, 97, 97, 98, 98],
     [99, 99, 100, 100, 101, 101, 102, 102],
     [58, 58, 93, 93, 48, 48, 49, 49],
     [50, 50, 51, 57, 65, 65, 66, 66],
     [67, 67, 68, 68, 69, 69, 70, 70],
     [97, 97, 98, 98, 99, 99, 100, 100],
     [101, 101, 102, 102, 46, 46, 48, 57],
     [58, 58, 65, 65, 66, 66, 67, 67],
     [68, 68, 69, 69, 70, 70, 93, 93],
     [97, 97, 98, 98, 99, 99, 100, 100],
     [101, 101, 102, 102, 46, 46, 48, 57],
     [58, 58, 65, 65, 66, 66, 67, 67],
     [68, 68, 69, 69, 70, 70, 93, 93],
     [97, 97, 98, 98, 99, 99, 100, 100],
     [101, 101, 102, 102, 46, 46, 48, 57],
     [58, 58, 65, 65, 66, 66, 67, 67],
     [68, 68, 69, 69, 70, 70, 93, 93],
     [97, 97, 98, 98, 99, 99, 100, 100],
     [101, 101, 102, 102, 46, 46, 48, 52],
     [53, 53, 54, 57, 58, 58, 65, 65],
     [66, 66, 67, 67, 68, 68, 69, 69],
     [70, 70, 93, 93, 97, 97, 98, 98]]"

definition sup_cond_keys_8 :: "int list list" where
  "sup_cond_keys_8 =
    [[99, 99, 100, 100, 101, 101, 102, 102],
     [46, 46, 48, 53, 54, 57, 58, 58],
     [65, 65, 66, 66, 67, 67, 68, 68],
     [69, 69, 70, 70, 93, 93, 97, 97],
     [98, 98, 99, 99, 100, 100, 101, 101],
     [102, 102, 46, 46, 48, 57, 58, 58],
     [65, 65, 66, 66, 67, 67, 68, 68],
     [69, 69, 70, 70, 93, 93, 97, 97],
     [98, 98, 99, 99, 100, 100, 101, 101],
     [102, 102, 46, 46, 48, 57, 58, 58],
     [65, 65, 66, 66, 67, 67, 68, 68],
     [69, 69, 70, 70, 93, 93, 97, 97],
     [98, 98, 99, 99, 100, 100, 101, 101],
     [102, 102, 48, 57, 58, 58, 65, 65],
     [66, 66, 67, 67, 68, 68, 69, 69],
     [70, 70, 93, 93, 97, 97, 98, 98],
     [99, 99, 100, 100, 101, 101, 102, 102],
     [58, 58, 48, 48, 49, 49, 50, 50],
     [51, 57, 65, 65, 66, 66, 67, 67],
     [68, 68, 69, 69, 70, 70, 93, 93],
     [97, 97, 98, 98, 99, 99, 100, 100],
     [101, 101, 102, 102, 46, 46, 48, 57],
     [58, 58, 65, 65, 66, 66, 67, 67],
     [68, 68, 69, 69, 70, 70, 93, 93],
     [97, 97, 98, 98, 99, 99, 100, 100],
     [101, 101, 102, 102, 48, 57, 58, 58],
     [65, 65, 66, 66, 67, 67, 68, 68],
     [69, 69, 70, 70, 93, 93, 97, 97],
     [98, 98, 99, 99, 100, 100, 101, 101],
     [102, 102, 48, 57, 58, 58, 65, 65],
     [66, 66, 67, 67, 68, 68, 69, 69],
     [70, 70, 93, 93, 97, 97, 98, 98],
     [99, 99, 100, 100, 101, 101, 102, 102],
     [58, 58, 93, 93, 48, 48, 49, 49],
     [50, 50, 51, 57, 65, 65, 66, 66],
     [67, 67, 68, 68, 69, 69, 70, 70],
     [97, 97, 98, 98, 99, 99, 100, 100],
     [101, 101, 102, 102, 46, 46, 48, 57],
     [58, 58, 65, 65, 66, 66, 67, 67],
     [68, 68, 69, 69, 70, 70, 93, 93],
     [97, 97, 98, 98, 99, 99, 100, 100],
     [101, 101, 102, 102, 46, 46, 48, 57],
     [58, 58, 65, 65, 66, 66, 67, 67],
     [68, 68, 69, 69, 70, 70, 93, 93],
     [97, 97, 98, 98, 99, 99, 100, 100],
     [101, 101, 102, 102, 46, 46, 48, 57],
     [58, 58, 65, 65, 66, 66, 67, 67],
     [68, 68, 69, 69, 70, 70, 93, 93],
     [97, 97, 98, 98, 99, 99, 100, 100],
     [101, 101, 102, 102, 46, 46, 48, 52],
     [53, 53, 54, 57, 58, 58, 65, 65],
     [66, 66, 67, 67, 68, 68, 69, 69],
     [70, 70, 93, 93, 97, 97, 98, 98],
     [99, 99, 100, 100, 101, 101, 102, 102],
     [46, 46, 48, 53, 54, 57, 58, 58],
     [65, 65, 66, 66, 67, 67, 68, 68],
     [69, 69, 70, 70, 93, 93, 97, 97],
     [98, 98, 99, 99, 100, 100, 101, 101],
     [102, 102, 46, 46, 48, 57, 58, 58],
     [65, 65, 66, 66, 67, 67, 68, 68],
     [69, 69, 70, 70, 93, 93, 97, 97],
     [98, 98, 99, 99, 100, 100, 101, 101],
     [102, 102, 46, 46, 48, 57, 58, 58],
     [65, 65, 66, 66, 67, 67, 68, 68],
     [69, 69, 70, 70, 93, 93, 97, 97],
     [98, 98, 99, 99, 100, 100, 101, 101],
     [102, 102, 48, 57, 58, 58, 65, 65],
     [66, 66, 67, 67, 68, 68, 69, 69],
     [70, 70, 93, 93, 97, 97, 98, 98],
     [99, 99, 100, 100, 101, 101, 102, 102],
     [48, 57, 65, 65, 66, 66, 67, 67],
     [68, 68, 69, 69, 70, 70, 97, 97],
     [98, 98, 99, 99, 100, 100, 101, 101],
     [102, 102, 48, 57, 65, 65, 66, 66],
     [67, 67, 68, 68, 69, 69, 70, 70],
     [97, 97, 98, 98, 99, 99, 100, 100],
     [101, 101, 102, 102, 33, 33, 36, 36],
     [37, 37, 38, 38, 39, 39, 40, 40],
     [41, 41, 42, 42, 43, 43, 44, 44],
     [45, 45, 46, 46, 47, 47, 48, 57],
     [58, 58, 59, 59, 61, 61, 62, 62],
     [63, 63, 64, 64, 65, 90, 95, 95],
     [97, 122, 126, 126, 48, 57, 65, 65],
     [66, 66, 67, 67, 68, 68, 69, 69],
     [70, 70, 97, 97, 98, 98, 99, 99],
     [100, 100, 101, 101, 102, 102, 48, 57],
     [65, 65, 66, 66, 67, 67, 68, 68],
     [69, 69, 70, 70, 97, 97, 98, 98],
     [99, 99, 100, 100, 101, 101, 102, 102],
     [33, 33, 36, 36, 37, 37, 38, 38],
     [39, 39, 40, 40, 41, 41, 42, 42],
     [43, 43, 44, 44, 45, 45, 46, 46],
     [47, 47, 48, 48, 49, 49, 50, 50],
     [51, 57, 58, 58, 59, 59, 61, 61],
     [62, 62, 63, 63, 64, 64, 65, 90],
     [91, 91, 95, 95, 97, 122, 126, 126],
     [33, 33, 35, 35, 36, 36, 37, 37],
     [38, 38, 39, 39, 40, 40, 41, 41],
     [42, 42, 43, 43, 44, 44, 45, 45],
     [46, 46, 47, 47, 48, 57, 58, 58],
     [59, 59, 61, 61, 62, 62, 63, 63],
     [64, 64, 65, 90, 95, 95, 97, 122],
     [126, 126, 33, 33, 35, 35, 36, 36],
     [37, 37, 38, 38, 39, 39, 40, 40],
     [41, 41, 42, 42, 43, 43, 44, 44],
     [45, 45, 46, 46, 47, 47, 48, 48],
     [49, 49, 50, 50, 51, 57, 58, 58],
     [59, 59, 61, 61, 62, 62, 63, 63],
     [64, 64, 65, 90, 91, 91, 95, 95],
     [97, 122, 126, 126, 33, 33, 35, 35],
     [36, 36, 37, 37, 38, 38, 39, 39],
     [40, 40, 41, 41, 42, 42, 43, 43],
     [44, 44, 45, 45, 46, 46, 47, 47],
     [48, 57, 58, 58, 59, 59, 61, 61],
     [62, 62, 63, 63, 64, 64, 65, 90],
     [95, 95, 97, 122, 126, 126, 33, 33],
     [35, 35, 36, 36, 37, 37, 38, 38],
     [39, 39, 40, 40, 41, 41, 42, 42],
     [43, 43, 44, 44, 45, 45, 46, 46],
     [47, 47, 48, 57, 58, 58, 59, 59],
     [61, 61, 63, 63, 64, 64, 65, 90],
     [95, 95, 97, 122, 126, 126, 48, 57],
     [65, 65, 66, 66, 67, 67, 68, 68],
     [69, 69, 70, 70, 97, 97, 98, 98],
     [99, 99, 100, 100, 101, 101, 102, 102],
     [48, 57, 65, 65, 66, 66, 67, 67],
     [68, 68, 69, 69, 70, 70, 97, 97],
     [98, 98, 99, 99, 100, 100, 101, 101],
     [102, 102, 33, 33, 36, 36, 37, 37],
     [38, 38, 39, 39, 40, 40, 41, 41],
     [42, 42, 43, 43, 44, 44, 45, 45],
     [46, 46, 48, 57, 61, 61, 64, 64],
     [65, 90, 95, 95, 97, 122, 126, 126],
     [48, 57, 65, 65, 66, 66, 67, 67],
     [68, 68, 69, 69, 70, 70, 97, 97],
     [98, 98, 99, 99, 100, 100, 101, 101],
     [102, 102, 48, 57, 65, 65, 66, 66],
     [67, 67, 68, 68, 69, 69, 70, 70],
     [97, 97, 98, 98, 99, 99, 100, 100],
     [101, 101, 102, 102, 48, 48, 49, 49],
     [50, 50, 51, 57, 65, 90, 91, 91],
     [97, 122, 45, 45, 46, 46, 48, 57],
     [65, 90, 95, 95, 97, 122, 45, 45],
     [48, 57, 65, 90, 95, 95, 97, 122],
     [45, 45, 46, 46, 48, 57, 65, 90],
     [95, 95, 97, 122, 48, 57, 65, 90],
     [97, 122, 45, 45, 46, 46, 47, 47],
     [48, 57, 58, 58, 62, 62, 63, 63],
     [65, 90, 95, 95, 97, 122, 45, 45],
     [48, 57, 65, 90, 95, 95, 97, 122]]"

definition sup_cond_keys_9 :: "int list list" where
  "sup_cond_keys_9 =
    [[47, 47, 48, 57, 58, 58, 62, 62],
     [63, 63, 65, 90, 97, 122, 48, 48],
     [49, 53, 54, 54, 55, 57, 48, 48],
     [49, 57, 48, 48, 49, 57, 49, 57],
     [47, 47, 62, 62, 63, 63, 47, 47],
     [48, 57, 62, 62, 63, 63, 47, 47],
     [48, 57, 62, 62, 63, 63, 47, 47],
     [48, 57, 62, 62, 63, 63, 47, 47],
     [48, 57, 62, 62, 63, 63, 47, 47],
     [48, 52, 53, 53, 54, 57, 62, 62],
     [63, 63, 47, 47, 48, 52, 53, 53],
     [54, 57, 62, 62, 63, 63, 47, 47],
     [48, 50, 51, 51, 52, 57, 62, 62],
     [63, 63, 47, 47, 48, 53, 62, 62],
     [63, 63, 48, 48, 49, 49, 50, 50],
     [51, 57, 65, 90, 97, 122, 45, 45],
     [46, 46, 48, 57, 65, 90, 95, 95],
     [97, 122, 48, 48, 49, 49, 50, 50],
     [51, 57, 65, 90, 97, 122, 45, 45],
     [46, 46, 48, 57, 65, 90, 95, 95],
     [97, 122, 48, 48, 49, 49, 50, 50],
     [51, 57, 65, 90, 97, 122, 45, 45],
     [46, 46, 47, 47, 48, 57, 58, 58],
     [62, 62, 63, 63, 65, 90, 95, 95],
     [97, 122, 45, 45, 46, 46, 47, 47],
     [48, 57, 58, 58, 62, 62, 63, 63],
     [65, 90, 95, 95, 97, 122, 45, 45],
     [46, 46, 47, 47, 48, 57, 58, 58],
     [62, 62, 63, 63, 65, 90, 95, 95],
     [97, 122, 45, 45, 46, 46, 47, 47],
     [48, 52, 53, 53, 54, 57, 58, 58],
     [62, 62, 63, 63, 65, 90, 95, 95],
     [97, 122, 45, 45, 46, 46, 47, 47],
     [48, 53, 54, 57, 58, 58, 62, 62],
     [63, 63, 65, 90, 95, 95, 97, 122],
     [45, 45, 46, 46, 48, 57, 65, 90],
     [95, 95, 97, 122, 45, 45, 46, 46],
     [48, 57, 65, 90, 95, 95, 97, 122],
     [45, 45, 46, 46, 48, 52, 53, 53],
     [54, 57, 65, 90, 95, 95, 97, 122],
     [45, 45, 46, 46, 48, 53, 54, 57],
     [65, 90, 95, 95, 97, 122, 45, 45],
     [46, 46, 48, 57, 65, 90, 95, 95],
     [97, 122, 45, 45, 46, 46, 48, 57],
     [65, 90, 95, 95, 97, 122, 45, 45],
     [46, 46, 48, 52, 53, 53, 54, 57],
     [65, 90, 95, 95, 97, 122, 45, 45],
     [46, 46, 48, 53, 54, 57, 65, 90],
     [95, 95, 97, 122, 45, 45, 46, 46],
     [48, 57, 65, 90, 95, 95, 97, 122],
     [45, 45, 46, 46, 48, 57, 65, 90],
     [95, 95, 97, 122, 45, 45, 46, 46],
     [48, 52, 53, 53, 54, 57, 65, 90],
     [95, 95, 97, 122, 45, 45, 46, 46],
     [48, 53, 54, 57, 65, 90, 95, 95],
     [97, 122, 48, 57, 58, 58, 65, 65],
     [66, 66, 67, 67, 68, 68, 69, 69],
     [70, 70, 97, 97, 98, 98, 99, 99],
     [100, 100, 101, 101, 102, 102, 48, 57],
     [58, 58, 65, 65, 66, 66, 67, 67],
     [68, 68, 69, 69, 70, 70, 97, 97],
     [98, 98, 99, 99, 100, 100, 101, 101],
     [102, 102, 48, 57, 58, 58, 65, 65],
     [66, 66, 67, 67, 68, 68, 69, 69],
     [70, 70, 97, 97, 98, 98, 99, 99],
     [100, 100, 101, 101, 102, 102, 48, 57],
     [58, 58, 65, 65, 66, 66, 67, 67],
     [68, 68, 69, 69, 70, 70, 97, 97],
     [98, 98, 99, 99, 100, 100, 101, 101],
     [102, 102, 58, 58, 48, 57, 58, 58],
     [65, 65, 66, 66, 67, 67, 68, 68],
     [69, 69, 70, 70, 97, 97, 98, 98],
     [99, 99, 100, 100, 101, 101, 102, 102],
     [48, 57, 58, 58, 65, 65, 66, 66],
     [67, 67, 68, 68, 69, 69, 70, 70],
     [97, 97, 98, 98, 99, 99, 100, 100],
     [101, 101, 102, 102, 48, 57, 58, 58],
     [65, 65, 66, 66, 67, 67, 68, 68],
     [69, 69, 70, 70, 97, 97, 98, 98],
     [99, 99, 100, 100, 101, 101, 102, 102],
     [48, 57, 58, 58, 65, 65, 66, 66],
     [67, 67, 68, 68, 69, 69, 70, 70],
     [97, 97, 98, 98, 99, 99, 100, 100],
     [101, 101, 102, 102, 58, 58, 48, 57],
     [58, 58, 65, 65, 66, 66, 67, 67],
     [68, 68, 69, 69, 70, 70, 97, 97],
     [98, 98, 99, 99, 100, 100, 101, 101],
     [102, 102, 48, 57, 58, 58, 65, 65],
     [66, 66, 67, 67, 68, 68, 69, 69],
     [70, 70, 97, 97, 98, 98, 99, 99],
     [100, 100, 101, 101, 102, 102, 48, 57],
     [58, 58, 65, 65, 66, 66, 67, 67],
     [68, 68, 69, 69, 70, 70, 97, 97],
     [98, 98, 99, 99, 100, 100, 101, 101],
     [102, 102, 48, 57, 58, 58, 65, 65],
     [66, 66, 67, 67, 68, 68, 69, 69],
     [70, 70, 97, 97, 98, 98, 99, 99],
     [100, 100, 101, 101, 102, 102, 58, 58],
     [48, 57, 58, 58, 65, 65, 66, 66],
     [67, 67, 68, 68, 69, 69, 70, 70],
     [97, 97, 98, 98, 99, 99, 100, 100],
     [101, 101, 102, 102, 48, 57, 58, 58],
     [65, 65, 66, 66, 67, 67, 68, 68],
     [69, 69, 70, 70, 97, 97, 98, 98],
     [99, 99, 100, 100, 101, 101, 102, 102],
     [48, 57, 58, 58, 65, 65, 66, 66],
     [67, 67, 68, 68, 69, 69, 70, 70],
     [97, 97, 98, 98, 99, 99, 100, 100],
     [101, 101, 102, 102, 48, 57, 58, 58],
     [65, 65, 66, 66, 67, 67, 68, 68],
     [69, 69, 70, 70, 97, 97, 98, 98],
     [99, 99, 100, 100, 101, 101, 102, 102],
     [58, 58, 48, 57, 58, 58, 65, 65],
     [66, 66, 67, 67, 68, 68, 69, 69],
     [70, 70, 97, 97, 98, 98, 99, 99],
     [100, 100, 101, 101, 102, 102, 48, 57],
     [58, 58, 65, 65, 66, 66, 67, 67],
     [68, 68, 69, 69, 70, 70, 97, 97],
     [98, 98, 99, 99, 100, 100, 101, 101],
     [102, 102, 48, 57, 58, 58, 65, 65],
     [66, 66, 67, 67, 68, 68, 69, 69],
     [70, 70, 97, 97, 98, 98, 99, 99],
     [100, 100, 101, 101, 102, 102, 48, 57],
     [58, 58, 65, 65, 66, 66, 67, 67],
     [68, 68, 69, 69, 70, 70, 97, 97],
     [98, 98, 99, 99, 100, 100, 101, 101],
     [102, 102, 58, 58, 48, 57, 58, 58],
     [65, 65, 66, 66, 67, 67, 68, 68],
     [69, 69, 70, 70, 97, 97, 98, 98],
     [99, 99, 100, 100, 101, 101, 102, 102],
     [48, 57, 58, 58, 65, 65, 66, 66],
     [67, 67, 68, 68, 69, 69, 70, 70],
     [97, 97, 98, 98, 99, 99, 100, 100],
     [101, 101, 102, 102, 48, 57, 58, 58],
     [65, 65, 66, 66, 67, 67, 68, 68],
     [69, 69, 70, 70, 97, 97, 98, 98],
     [99, 99, 100, 100, 101, 101, 102, 102],
     [48, 57, 58, 58, 65, 65, 66, 66],
     [67, 67, 68, 68, 69, 69, 70, 70],
     [97, 97, 98, 98, 99, 99, 100, 100],
     [101, 101, 102, 102, 58, 58, 48, 48],
     [49, 49, 50, 50, 51, 57, 58, 58],
     [65, 65, 66, 66, 67, 67, 68, 68],
     [69, 69, 70, 70, 97, 97, 98, 98],
     [99, 99, 100, 100, 101, 101, 102, 102],
     [46, 46, 48, 57, 58, 58, 65, 65],
     [66, 66, 67, 67, 68, 68, 69, 69],
     [70, 70, 97, 97, 98, 98, 99, 99],
     [100, 100, 101, 101, 102, 102, 48, 48],
     [49, 49, 50, 50, 51, 57, 46, 46]]"

definition sup_cond_keys_10 :: "int list list" where
  "sup_cond_keys_10 =
    [[48, 48, 49, 49, 50, 50, 51, 57],
     [46, 46, 48, 48, 49, 49, 50, 50],
     [51, 57, 93, 93, 47, 47, 58, 58],
     [62, 62, 63, 63, 48, 57, 93, 93],
     [48, 57, 93, 93, 48, 52, 53, 53],
     [54, 57, 93, 93, 48, 53, 93, 93],
     [46, 46, 48, 57, 46, 46, 48, 57],
     [46, 46, 48, 52, 53, 53, 54, 57],
     [46, 46, 48, 53, 46, 46, 48, 57],
     [46, 46, 48, 57, 46, 46, 48, 52],
     [53, 53, 54, 57, 46, 46, 48, 53],
     [48, 57, 58, 58, 65, 65, 66, 66],
     [67, 67, 68, 68, 69, 69, 70, 70],
     [97, 97, 98, 98, 99, 99, 100, 100],
     [101, 101, 102, 102, 48, 57, 58, 58],
     [65, 65, 66, 66, 67, 67, 68, 68],
     [69, 69, 70, 70, 97, 97, 98, 98],
     [99, 99, 100, 100, 101, 101, 102, 102],
     [58, 58, 48, 57, 58, 58, 65, 65],
     [66, 66, 67, 67, 68, 68, 69, 69],
     [70, 70, 97, 97, 98, 98, 99, 99],
     [100, 100, 101, 101, 102, 102, 48, 57],
     [65, 65, 66, 66, 67, 67, 68, 68],
     [69, 69, 70, 70, 93, 93, 97, 97],
     [98, 98, 99, 99, 100, 100, 101, 101],
     [102, 102, 48, 57, 65, 65, 66, 66],
     [67, 67, 68, 68, 69, 69, 70, 70],
     [93, 93, 97, 97, 98, 98, 99, 99],
     [100, 100, 101, 101, 102, 102, 48, 57],
     [65, 65, 66, 66, 67, 67, 68, 68],
     [69, 69, 70, 70, 93, 93, 97, 97],
     [98, 98, 99, 99, 100, 100, 101, 101],
     [102, 102, 46, 46, 48, 57, 58, 58],
     [65, 65, 66, 66, 67, 67, 68, 68],
     [69, 69, 70, 70, 97, 97, 98, 98],
     [99, 99, 100, 100, 101, 101, 102, 102],
     [46, 46, 48, 57, 58, 58, 65, 65],
     [66, 66, 67, 67, 68, 68, 69, 69],
     [70, 70, 97, 97, 98, 98, 99, 99],
     [100, 100, 101, 101, 102, 102, 46, 46],
     [48, 57, 58, 58, 65, 65, 66, 66],
     [67, 67, 68, 68, 69, 69, 70, 70],
     [97, 97, 98, 98, 99, 99, 100, 100],
     [101, 101, 102, 102, 46, 46, 48, 52],
     [53, 53, 54, 57, 58, 58, 65, 65],
     [66, 66, 67, 67, 68, 68, 69, 69],
     [70, 70, 97, 97, 98, 98, 99, 99],
     [100, 100, 101, 101, 102, 102, 46, 46],
     [48, 53, 54, 57, 58, 58, 65, 65],
     [66, 66, 67, 67, 68, 68, 69, 69],
     [70, 70, 97, 97, 98, 98, 99, 99],
     [100, 100, 101, 101, 102, 102, 46, 46],
     [48, 57, 58, 58, 65, 65, 66, 66],
     [67, 67, 68, 68, 69, 69, 70, 70],
     [97, 97, 98, 98, 99, 99, 100, 100],
     [101, 101, 102, 102, 46, 46, 48, 57],
     [58, 58, 65, 65, 66, 66, 67, 67],
     [68, 68, 69, 69, 70, 70, 97, 97],
     [98, 98, 99, 99, 100, 100, 101, 101],
     [102, 102, 48, 57, 65, 65, 66, 66],
     [67, 67, 68, 68, 69, 69, 70, 70],
     [93, 93, 97, 97, 98, 98, 99, 99],
     [100, 100, 101, 101, 102, 102, 48, 57],
     [58, 58, 65, 65, 66, 66, 67, 67],
     [68, 68, 69, 69, 70, 70, 97, 97],
     [98, 98, 99, 99, 100, 100, 101, 101],
     [102, 102, 48, 48, 49, 49, 50, 50],
     [51, 57, 65, 65, 66, 66, 67, 67],
     [68, 68, 69, 69, 70, 70, 93, 93],
     [97, 97, 98, 98, 99, 99, 100, 100],
     [101, 101, 102, 102, 46, 46, 48, 57],
     [58, 58, 65, 65, 66, 66, 67, 67],
     [68, 68, 69, 69, 70, 70, 93, 93],
     [97, 97, 98, 98, 99, 99, 100, 100],
     [101, 101, 102, 102, 48, 57, 58, 58],
     [65, 65, 66, 66, 67, 67, 68, 68],
     [69, 69, 70, 70, 93, 93, 97, 97],
     [98, 98, 99, 99, 100, 100, 101, 101],
     [102, 102, 48, 57, 58, 58, 65, 65],
     [66, 66, 67, 67, 68, 68, 69, 69],
     [70, 70, 93, 93, 97, 97, 98, 98],
     [99, 99, 100, 100, 101, 101, 102, 102],
     [58, 58, 93, 93, 48, 57, 65, 65],
     [66, 66, 67, 67, 68, 68, 69, 69],
     [70, 70, 97, 97, 98, 98, 99, 99],
     [100, 100, 101, 101, 102, 102, 46, 46],
     [48, 57, 58, 58, 65, 65, 66, 66],
     [67, 67, 68, 68, 69, 69, 70, 70],
     [93, 93, 97, 97, 98, 98, 99, 99],
     [100, 100, 101, 101, 102, 102, 46, 46],
     [48, 57, 58, 58, 65, 65, 66, 66],
     [67, 67, 68, 68, 69, 69, 70, 70],
     [93, 93, 97, 97, 98, 98, 99, 99],
     [100, 100, 101, 101, 102, 102, 46, 46],
     [48, 57, 58, 58, 65, 65, 66, 66],
     [67, 67, 68, 68, 69, 69, 70, 70],
     [93, 93, 97, 97, 98, 98, 99, 99],
     [100, 100, 101, 101, 102, 102, 46, 46],
     [48, 52, 53, 53, 54, 57, 58, 58],
     [65, 65, 66, 66, 67, 67, 68, 68],
     [69, 69, 70, 70, 93, 93, 97, 97],
     [98, 98, 99, 99, 100, 100, 101, 101],
     [102, 102, 46, 46, 48, 53, 54, 57],
     [58, 58, 65, 65, 66, 66, 67, 67],
     [68, 68, 69, 69, 70, 70, 93, 93],
     [97, 97, 98, 98, 99, 99, 100, 100],
     [101, 101, 102, 102, 46, 46, 48, 57],
     [58, 58, 65, 65, 66, 66, 67, 67],
     [68, 68, 69, 69, 70, 70, 93, 93],
     [97, 97, 98, 98, 99, 99, 100, 100],
     [101, 101, 102, 102, 46, 46, 48, 57],
     [58, 58, 65, 65, 66, 66, 67, 67],
     [68, 68, 69, 69, 70, 70, 93, 93],
     [97, 97, 98, 98, 99, 99, 100, 100],
     [101, 101, 102, 102, 48, 57, 58, 58],
     [65, 65, 66, 66, 67, 67, 68, 68],
     [69, 69, 70, 70, 93, 93, 97, 97],
     [98, 98, 99, 99, 100, 100, 101, 101],
     [102, 102, 48, 48, 49, 49, 50, 50],
     [51, 57, 65, 65, 66, 66, 67, 67],
     [68, 68, 69, 69, 70, 70, 93, 93],
     [97, 97, 98, 98, 99, 99, 100, 100],
     [101, 101, 102, 102, 46, 46, 48, 57],
     [58, 58, 65, 65, 66, 66, 67, 67],
     [68, 68, 69, 69, 70, 70, 93, 93],
     [97, 97, 98, 98, 99, 99, 100, 100],
     [101, 101, 102, 102, 48, 57, 58, 58],
     [65, 65, 66, 66, 67, 67, 68, 68],
     [69, 69, 70, 70, 93, 93, 97, 97],
     [98, 98, 99, 99, 100, 100, 101, 101],
     [102, 102, 48, 57, 58, 58, 65, 65],
     [66, 66, 67, 67, 68, 68, 69, 69],
     [70, 70, 93, 93, 97, 97, 98, 98],
     [99, 99, 100, 100, 101, 101, 102, 102],
     [58, 58, 93, 93, 48, 48, 49, 49],
     [50, 50, 51, 57, 65, 65, 66, 66],
     [67, 67, 68, 68, 69, 69, 70, 70],
     [97, 97, 98, 98, 99, 99, 100, 100],
     [101, 101, 102, 102, 46, 46, 48, 57],
     [58, 58, 65, 65, 66, 66, 67, 67],
     [68, 68, 69, 69, 70, 70, 93, 93],
     [97, 97, 98, 98, 99, 99, 100, 100],
     [101, 101, 102, 102, 46, 46, 48, 57],
     [58, 58, 65, 65, 66, 66, 67, 67],
     [68, 68, 69, 69, 70, 70, 93, 93],
     [97, 97, 98, 98, 99, 99, 100, 100],
     [101, 101, 102, 102, 46, 46, 48, 57],
     [58, 58, 65, 65, 66, 66, 67, 67],
     [68, 68, 69, 69, 70, 70, 93, 93],
     [97, 97, 98, 98, 99, 99, 100, 100]]"

definition sup_cond_keys_11 :: "int list list" where
  "sup_cond_keys_11 =
    [[101, 101, 102, 102, 46, 46, 48, 52],
     [53, 53, 54, 57, 58, 58, 65, 65],
     [66, 66, 67, 67, 68, 68, 69, 69],
     [70, 70, 93, 93, 97, 97, 98, 98],
     [99, 99, 100, 100, 101, 101, 102, 102],
     [46, 46, 48, 53, 54, 57, 58, 58],
     [65, 65, 66, 66, 67, 67, 68, 68],
     [69, 69, 70, 70, 93, 93, 97, 97],
     [98, 98, 99, 99, 100, 100, 101, 101],
     [102, 102, 46, 46, 48, 57, 58, 58],
     [65, 65, 66, 66, 67, 67, 68, 68],
     [69, 69, 70, 70, 93, 93, 97, 97],
     [98, 98, 99, 99, 100, 100, 101, 101],
     [102, 102, 46, 46, 48, 57, 58, 58],
     [65, 65, 66, 66, 67, 67, 68, 68],
     [69, 69, 70, 70, 93, 93, 97, 97],
     [98, 98, 99, 99, 100, 100, 101, 101],
     [102, 102, 48, 57, 58, 58, 65, 65],
     [66, 66, 67, 67, 68, 68, 69, 69],
     [70, 70, 93, 93, 97, 97, 98, 98],
     [99, 99, 100, 100, 101, 101, 102, 102],
     [48, 48, 49, 49, 50, 50, 51, 57],
     [65, 65, 66, 66, 67, 67, 68, 68],
     [69, 69, 70, 70, 93, 93, 97, 97],
     [98, 98, 99, 99, 100, 100, 101, 101],
     [102, 102, 46, 46, 48, 57, 58, 58],
     [65, 65, 66, 66, 67, 67, 68, 68],
     [69, 69, 70, 70, 93, 93, 97, 97],
     [98, 98, 99, 99, 100, 100, 101, 101],
     [102, 102, 48, 57, 58, 58, 65, 65],
     [66, 66, 67, 67, 68, 68, 69, 69],
     [70, 70, 93, 93, 97, 97, 98, 98],
     [99, 99, 100, 100, 101, 101, 102, 102],
     [48, 57, 58, 58, 65, 65, 66, 66],
     [67, 67, 68, 68, 69, 69, 70, 70],
     [93, 93, 97, 97, 98, 98, 99, 99],
     [100, 100, 101, 101, 102, 102, 58, 58],
     [93, 93, 48, 48, 49, 49, 50, 50],
     [51, 57, 65, 65, 66, 66, 67, 67],
     [68, 68, 69, 69, 70, 70, 97, 97],
     [98, 98, 99, 99, 100, 100, 101, 101],
     [102, 102, 46, 46, 48, 57, 58, 58],
     [65, 65, 66, 66, 67, 67, 68, 68],
     [69, 69, 70, 70, 93, 93, 97, 97],
     [98, 98, 99, 99, 100, 100, 101, 101],
     [102, 102, 46, 46, 48, 57, 58, 58],
     [65, 65, 66, 66, 67, 67, 68, 68],
     [69, 69, 70, 70, 93, 93, 97, 97],
     [98, 98, 99, 99, 100, 100, 101, 101],
     [102, 102, 46, 46, 48, 57, 58, 58],
     [65, 65, 66, 66, 67, 67, 68, 68],
     [69, 69, 70, 70, 93, 93, 97, 97],
     [98, 98, 99, 99, 100, 100, 101, 101],
     [102, 102, 46, 46, 48, 52, 53, 53],
     [54, 57, 58, 58, 65, 65, 66, 66],
     [67, 67, 68, 68, 69, 69, 70, 70],
     [93, 93, 97, 97, 98, 98, 99, 99],
     [100, 100, 101, 101, 102, 102, 46, 46],
     [48, 53, 54, 57, 58, 58, 65, 65],
     [66, 66, 67, 67, 68, 68, 69, 69],
     [70, 70, 93, 93, 97, 97, 98, 98],
     [99, 99, 100, 100, 101, 101, 102, 102],
     [46, 46, 48, 57, 58, 58, 65, 65],
     [66, 66, 67, 67, 68, 68, 69, 69],
     [70, 70, 93, 93, 97, 97, 98, 98],
     [99, 99, 100, 100, 101, 101, 102, 102],
     [46, 46, 48, 57, 58, 58, 65, 65],
     [66, 66, 67, 67, 68, 68, 69, 69],
     [70, 70, 93, 93, 97, 97, 98, 98],
     [99, 99, 100, 100, 101, 101, 102, 102],
     [48, 57, 58, 58, 65, 65, 66, 66],
     [67, 67, 68, 68, 69, 69, 70, 70],
     [93, 93, 97, 97, 98, 98, 99, 99],
     [100, 100, 101, 101, 102, 102, 48, 48],
     [49, 49, 50, 50, 51, 57, 65, 65],
     [66, 66, 67, 67, 68, 68, 69, 69],
     [70, 70, 93, 93, 97, 97, 98, 98],
     [99, 99, 100, 100, 101, 101, 102, 102],
     [46, 46, 48, 57, 58, 58, 65, 65],
     [66, 66, 67, 67, 68, 68, 69, 69],
     [70, 70, 93, 93, 97, 97, 98, 98],
     [99, 99, 100, 100, 101, 101, 102, 102],
     [48, 57, 58, 58, 65, 65, 66, 66],
     [67, 67, 68, 68, 69, 69, 70, 70],
     [93, 93, 97, 97, 98, 98, 99, 99],
     [100, 100, 101, 101, 102, 102, 48, 57],
     [58, 58, 65, 65, 66, 66, 67, 67],
     [68, 68, 69, 69, 70, 70, 93, 93],
     [97, 97, 98, 98, 99, 99, 100, 100],
     [101, 101, 102, 102, 58, 58, 93, 93],
     [48, 48, 49, 49, 50, 50, 51, 57],
     [65, 65, 66, 66, 67, 67, 68, 68],
     [69, 69, 70, 70, 97, 97, 98, 98],
     [99, 99, 100, 100, 101, 101, 102, 102],
     [46, 46, 48, 57, 58, 58, 65, 65],
     [66, 66, 67, 67, 68, 68, 69, 69],
     [70, 70, 93, 93, 97, 97, 98, 98],
     [99, 99, 100, 100, 101, 101, 102, 102],
     [46, 46, 48, 57, 58, 58, 65, 65],
     [66, 66, 67, 67, 68, 68, 69, 69],
     [70, 70, 93, 93, 97, 97, 98, 98],
     [99, 99, 100, 100, 101, 101, 102, 102],
     [46, 46, 48, 57, 58, 58, 65, 65],
     [66, 66, 67, 67, 68, 68, 69, 69],
     [70, 70, 93, 93, 97, 97, 98, 98],
     [99, 99, 100, 100, 101, 101, 102, 102],
     [46, 46, 48, 52, 53, 53, 54, 57],
     [58, 58, 65, 65, 66, 66, 67, 67],
     [68, 68, 69, 69, 70, 70, 93, 93],
     [97, 97, 98, 98, 99, 99, 100, 100],
     [101, 101, 102, 102, 46, 46, 48, 53],
     [54, 57, 58, 58, 65, 65, 66, 66],
     [67, 67, 68, 68, 69, 69, 70, 70],
     [93, 93, 97, 97, 98, 98, 99, 99],
     [100, 100, 101, 101, 102, 102, 46, 46],
     [48, 57, 58, 58, 65, 65, 66, 66],
     [67, 67, 68, 68, 69, 69, 70, 70],
     [93, 93, 97, 97, 98, 98, 99, 99],
     [100, 100, 101, 101, 102, 102, 46, 46],
     [48, 57, 58, 58, 65, 65, 66, 66],
     [67, 67, 68, 68, 69, 69, 70, 70],
     [93, 93, 97, 97, 98, 98, 99, 99],
     [100, 100, 101, 101, 102, 102, 48, 57],
     [58, 58, 65, 65, 66, 66, 67, 67],
     [68, 68, 69, 69, 70, 70, 93, 93],
     [97, 97, 98, 98, 99, 99, 100, 100],
     [101, 101, 102, 102, 48, 48, 49, 49],
     [50, 50, 51, 57, 65, 65, 66, 66],
     [67, 67, 68, 68, 69, 69, 70, 70],
     [93, 93, 97, 97, 98, 98, 99, 99],
     [100, 100, 101, 101, 102, 102, 46, 46],
     [48, 57, 58, 58, 65, 65, 66, 66],
     [67, 67, 68, 68, 69, 69, 70, 70],
     [93, 93, 97, 97, 98, 98, 99, 99],
     [100, 100, 101, 101, 102, 102, 48, 57],
     [58, 58, 65, 65, 66, 66, 67, 67],
     [68, 68, 69, 69, 70, 70, 93, 93],
     [97, 97, 98, 98, 99, 99, 100, 100],
     [101, 101, 102, 102, 48, 57, 58, 58],
     [65, 65, 66, 66, 67, 67, 68, 68],
     [69, 69, 70, 70, 93, 93, 97, 97],
     [98, 98, 99, 99, 100, 100, 101, 101],
     [102, 102, 58, 58, 93, 93, 48, 48],
     [49, 49, 50, 50, 51, 57, 65, 65],
     [66, 66, 67, 67, 68, 68, 69, 69],
     [70, 70, 97, 97, 98, 98, 99, 99],
     [100, 100, 101, 101, 102, 102, 46, 46],
     [48, 57, 58, 58, 65, 65, 66, 66],
     [67, 67, 68, 68, 69, 69, 70, 70],
     [93, 93, 97, 97, 98, 98, 99, 99]]"

definition sup_cond_keys_12 :: "int list list" where
  "sup_cond_keys_12 =
    [[100, 100, 101, 101, 102, 102, 46, 46],
     [48, 57, 58, 58, 65, 65, 66, 66],
     [67, 67, 68, 68, 69, 69, 70, 70],
     [93, 93, 97, 97, 98, 98, 99, 99],
     [100, 100, 101, 101, 102, 102, 46, 46],
     [48, 57, 58, 58, 65, 65, 66, 66],
     [67, 67, 68, 68, 69, 69, 70, 70],
     [93, 93, 97, 97, 98, 98, 99, 99],
     [100, 100, 101, 101, 102, 102, 46, 46],
     [48, 52, 53, 53, 54, 57, 58, 58],
     [65, 65, 66, 66, 67, 67, 68, 68],
     [69, 69, 70, 70, 93, 93, 97, 97],
     [98, 98, 99, 99, 100, 100, 101, 101],
     [102, 102, 46, 46, 48, 53, 54, 57],
     [58, 58, 65, 65, 66, 66, 67, 67],
     [68, 68, 69, 69, 70, 70, 93, 93],
     [97, 97, 98, 98, 99, 99, 100, 100],
     [101, 101, 102, 102, 46, 46, 48, 57],
     [58, 58, 65, 65, 66, 66, 67, 67],
     [68, 68, 69, 69, 70, 70, 93, 93],
     [97, 97, 98, 98, 99, 99, 100, 100],
     [101, 101, 102, 102, 46, 46, 48, 57],
     [58, 58, 65, 65, 66, 66, 67, 67],
     [68, 68, 69, 69, 70, 70, 93, 93],
     [97, 97, 98, 98, 99, 99, 100, 100],
     [101, 101, 102, 102, 48, 57, 58, 58],
     [65, 65, 66, 66, 67, 67, 68, 68],
     [69, 69, 70, 70, 93, 93, 97, 97],
     [98, 98, 99, 99, 100, 100, 101, 101],
     [102, 102, 58, 58, 48, 48, 49, 49],
     [50, 50, 51, 57, 65, 65, 66, 66],
     [67, 67, 68, 68, 69, 69, 70, 70],
     [93, 93, 97, 97, 98, 98, 99, 99],
     [100, 100, 101, 101, 102, 102, 46, 46],
     [48, 57, 58, 58, 65, 65, 66, 66],
     [67, 67, 68, 68, 69, 69, 70, 70],
     [93, 93, 97, 97, 98, 98, 99, 99],
     [100, 100, 101, 101, 102, 102, 48, 57],
     [58, 58, 65, 65, 66, 66, 67, 67],
     [68, 68, 69, 69, 70, 70, 93, 93],
     [97, 97, 98, 98, 99, 99, 100, 100],
     [101, 101, 102, 102, 48, 57, 58, 58],
     [65, 65, 66, 66, 67, 67, 68, 68],
     [69, 69, 70, 70, 93, 93, 97, 97],
     [98, 98, 99, 99, 100, 100, 101, 101],
     [102, 102, 58, 58, 93, 93, 48, 48],
     [49, 49, 50, 50, 51, 57, 65, 65],
     [66, 66, 67, 67, 68, 68, 69, 69],
     [70, 70, 97, 97, 98, 98, 99, 99],
     [100, 100, 101, 101, 102, 102, 46, 46],
     [48, 57, 58, 58, 65, 65, 66, 66],
     [67, 67, 68, 68, 69, 69, 70, 70],
     [93, 93, 97, 97, 98, 98, 99, 99],
     [100, 100, 101, 101, 102, 102, 46, 46],
     [48, 57, 58, 58, 65, 65, 66, 66],
     [67, 67, 68, 68, 69, 69, 70, 70],
     [93, 93, 97, 97, 98, 98, 99, 99],
     [100, 100, 101, 101, 102, 102, 46, 46],
     [48, 57, 58, 58, 65, 65, 66, 66],
     [67, 67, 68, 68, 69, 69, 70, 70],
     [93, 93, 97, 97, 98, 98, 99, 99],
     [100, 100, 101, 101, 102, 102, 46, 46],
     [48, 52, 53, 53, 54, 57, 58, 58],
     [65, 65, 66, 66, 67, 67, 68, 68],
     [69, 69, 70, 70, 93, 93, 97, 97],
     [98, 98, 99, 99, 100, 100, 101, 101],
     [102, 102, 46, 46, 48, 53, 54, 57],
     [58, 58, 65, 65, 66, 66, 67, 67],
     [68, 68, 69, 69, 70, 70, 93, 93],
     [97, 97, 98, 98, 99, 99, 100, 100],
     [101, 101, 102, 102, 46, 46, 48, 57],
     [58, 58, 65, 65, 66, 66, 67, 67],
     [68, 68, 69, 69, 70, 70, 93, 93],
     [97, 97, 98, 98, 99, 99, 100, 100],
     [101, 101, 102, 102, 46, 46, 48, 57],
     [58, 58, 65, 65, 66, 66, 67, 67],
     [68, 68, 69, 69, 70, 70, 93, 93],
     [97, 97, 98, 98, 99, 99, 100, 100],
     [101, 101, 102, 102, 48, 57, 58, 58],
     [65, 65, 66, 66, 67, 67, 68, 68],
     [69, 69, 70, 70, 93, 93, 97, 97],
     [98, 98, 99, 99, 100, 100, 101, 101],
     [102, 102, 48, 57, 65, 65, 66, 66],
     [67, 67, 68, 68, 69, 69, 70, 70],
     [97, 97, 98, 98, 99, 99, 100, 100],
     [101, 101, 102, 102, 48, 57, 65, 65],
     [66, 66, 67, 67, 68, 68, 69, 69],
     [70, 70, 97, 97, 98, 98, 99, 99],
     [100, 100, 101, 101, 102, 102, 33, 33],
     [36, 36, 37, 37, 38, 38, 39, 39],
     [40, 40, 41, 41, 42, 42, 43, 43],
     [44, 44, 45, 45, 46, 46, 47, 47],
     [48, 57, 58, 58, 59, 59, 61, 61],
     [62, 62, 63, 63, 64, 64, 65, 90],
     [95, 95, 97, 122, 126, 126, 48, 57],
     [65, 65, 66, 66, 67, 67, 68, 68],
     [69, 69, 70, 70, 97, 97, 98, 98],
     [99, 99, 100, 100, 101, 101, 102, 102],
     [48, 57, 65, 65, 66, 66, 67, 67],
     [68, 68, 69, 69, 70, 70, 97, 97],
     [98, 98, 99, 99, 100, 100, 101, 101],
     [102, 102, 33, 33, 36, 36, 37, 37],
     [38, 38, 39, 39, 40, 40, 41, 41],
     [42, 42, 43, 43, 44, 44, 45, 45],
     [46, 46, 47, 47, 48, 48, 49, 49],
     [50, 50, 51, 57, 58, 58, 59, 59],
     [61, 61, 62, 62, 63, 63, 64, 64],
     [65, 90, 91, 91, 95, 95, 97, 122],
     [126, 126, 43, 43, 45, 45, 46, 46],
     [48, 57, 58, 58, 65, 72, 73, 73],
     [74, 90, 97, 104, 105, 105, 106, 122],
     [43, 43, 45, 45, 46, 46, 48, 57],
     [58, 58, 65, 79, 80, 80, 81, 90],
     [97, 111, 112, 112, 113, 122, 43, 43],
     [45, 45, 46, 46, 48, 57, 58, 58],
     [65, 82, 83, 83, 84, 90, 97, 114],
     [115, 115, 116, 122, 33, 33, 35, 35],
     [36, 36, 37, 37, 38, 38, 39, 39],
     [40, 40, 41, 41, 42, 42, 43, 43],
     [44, 44, 45, 45, 46, 46, 47, 47],
     [48, 48, 49, 49, 50, 50, 51, 57],
     [59, 59, 61, 61, 63, 63, 65, 90],
     [91, 91, 95, 95, 97, 122, 126, 126],
     [33, 33, 35, 35, 36, 36, 37, 37],
     [38, 38, 39, 39, 40, 40, 41, 41],
     [42, 42, 43, 43, 44, 44, 45, 45],
     [46, 46, 47, 47, 48, 57, 58, 58],
     [59, 59, 61, 61, 63, 63, 64, 64],
     [65, 90, 95, 95, 97, 122, 126, 126],
     [48, 57, 65, 65, 66, 66, 67, 67],
     [68, 68, 69, 69, 70, 70, 97, 97],
     [98, 98, 99, 99, 100, 100, 101, 101],
     [102, 102, 48, 57, 65, 65, 66, 66],
     [67, 67, 68, 68, 69, 69, 70, 70],
     [97, 97, 98, 98, 99, 99, 100, 100],
     [101, 101, 102, 102, 33, 33, 36, 36],
     [37, 37, 38, 38, 39, 39, 40, 40],
     [41, 41, 42, 42, 43, 43, 44, 44],
     [45, 45, 46, 46, 48, 57, 61, 61],
     [64, 64, 65, 90, 95, 95, 97, 122],
     [126, 126, 48, 57, 65, 65, 66, 66],
     [67, 67, 68, 68, 69, 69, 70, 70],
     [97, 97, 98, 98, 99, 99, 100, 100],
     [101, 101, 102, 102, 48, 57, 65, 65],
     [66, 66, 67, 67, 68, 68, 69, 69],
     [70, 70, 97, 97, 98, 98, 99, 99],
     [100, 100, 101, 101, 102, 102, 48, 48],
     [49, 49, 50, 50, 51, 57, 65, 90],
     [91, 91, 97, 122, 45, 45, 46, 46],
     [48, 57, 65, 90, 95, 95, 97, 122]]"

definition sup_cond_keys_13 :: "int list list" where
  "sup_cond_keys_13 =
    [[45, 45, 48, 57, 65, 90, 95, 95],
     [97, 122, 45, 45, 46, 46, 48, 57],
     [65, 90, 95, 95, 97, 122, 48, 57],
     [65, 90, 97, 122, 45, 45, 46, 46],
     [48, 57, 58, 58, 59, 59, 62, 62],
     [63, 63, 65, 90, 95, 95, 97, 122],
     [45, 45, 48, 57, 65, 90, 95, 95],
     [97, 122, 48, 57, 58, 58, 59, 59],
     [62, 62, 63, 63, 65, 90, 97, 122],
     [48, 48, 49, 53, 54, 54, 55, 57],
     [48, 48, 49, 57, 48, 48, 49, 57],
     [49, 57, 59, 59, 62, 62, 63, 63],
     [33, 33, 36, 36, 37, 37, 38, 38],
     [39, 39, 40, 40, 41, 41, 42, 42],
     [43, 43, 45, 45, 46, 46, 47, 47],
     [48, 57, 58, 58, 65, 75, 76, 76],
     [77, 78, 79, 79, 80, 83, 84, 84],
     [85, 90, 91, 91, 93, 93, 95, 95],
     [97, 107, 108, 108, 109, 110, 111, 111],
     [112, 115, 116, 116, 117, 122, 126, 126],
     [33, 33, 36, 36, 37, 37, 38, 38],
     [39, 39, 40, 40, 41, 41, 42, 42],
     [43, 43, 45, 45, 46, 46, 47, 47],
     [48, 57, 58, 58, 59, 59, 61, 61],
     [62, 62, 63, 63, 65, 90, 91, 91],
     [93, 93, 95, 95, 97, 122, 126, 126],
     [48, 57, 65, 65, 66, 66, 67, 67],
     [68, 68, 69, 69, 70, 70, 97, 97],
     [98, 98, 99, 99, 100, 100, 101, 101],
     [102, 102, 48, 57, 65, 65, 66, 66],
     [67, 67, 68, 68, 69, 69, 70, 70],
     [97, 97, 98, 98, 99, 99, 100, 100],
     [101, 101, 102, 102, 33, 33, 36, 36],
     [37, 37, 38, 38, 39, 39, 40, 40],
     [41, 41, 42, 42, 43, 43, 45, 45],
     [46, 46, 47, 47, 48, 57, 58, 58],
     [59, 59, 61, 61, 62, 62, 63, 63],
     [65, 90, 91, 91, 93, 93, 95, 95],
     [97, 122, 126, 126, 33, 33, 36, 36],
     [37, 37, 38, 38, 39, 39, 40, 40],
     [41, 41, 42, 42, 43, 43, 45, 45],
     [46, 46, 47, 47, 48, 57, 58, 58],
     [59, 59, 62, 62, 63, 63, 65, 90],
     [91, 91, 93, 93, 95, 95, 97, 122],
     [126, 126, 48, 57, 65, 65, 66, 66],
     [67, 67, 68, 68, 69, 69, 70, 70],
     [97, 97, 98, 98, 99, 99, 100, 100],
     [101, 101, 102, 102, 48, 57, 65, 65],
     [66, 66, 67, 67, 68, 68, 69, 69],
     [70, 70, 97, 97, 98, 98, 99, 99],
     [100, 100, 101, 101, 102, 102, 33, 33],
     [36, 36, 37, 37, 39, 39, 40, 40],
     [41, 41, 42, 42, 43, 43, 45, 45],
     [46, 46, 47, 47, 48, 57, 58, 58],
     [63, 63, 65, 90, 91, 91, 93, 93],
     [95, 95, 97, 122, 126, 126, 33, 33],
     [36, 36, 37, 37, 39, 39, 40, 40],
     [41, 41, 42, 42, 43, 43, 45, 45],
     [46, 46, 47, 47, 48, 57, 58, 58],
     [61, 61, 63, 63, 65, 90, 91, 91],
     [93, 93, 95, 95, 97, 122, 126, 126],
     [48, 57, 65, 65, 66, 66, 67, 67],
     [68, 68, 69, 69, 70, 70, 97, 97],
     [98, 98, 99, 99, 100, 100, 101, 101],
     [102, 102, 48, 57, 65, 65, 66, 66],
     [67, 67, 68, 68, 69, 69, 70, 70],
     [97, 97, 98, 98, 99, 99, 100, 100],
     [101, 101, 102, 102, 33, 33, 36, 36],
     [37, 37, 38, 38, 39, 39, 40, 40],
     [41, 41, 42, 42, 43, 43, 45, 45],
     [46, 46, 47, 47, 48, 57, 58, 58],
     [62, 62, 63, 63, 65, 90, 91, 91],
     [93, 93, 95, 95, 97, 122, 126, 126],
     [48, 57, 65, 65, 66, 66, 67, 67],
     [68, 68, 69, 69, 70, 70, 97, 97],
     [98, 98, 99, 99, 100, 100, 101, 101],
     [102, 102, 48, 57, 65, 65, 66, 66],
     [67, 67, 68, 68, 69, 69, 70, 70],
     [97, 97, 98, 98, 99, 99, 100, 100],
     [101, 101, 102, 102, 33, 33, 36, 36],
     [37, 37, 38, 38, 39, 39, 40, 40],
     [41, 41, 42, 42, 43, 43, 45, 45],
     [46, 46, 47, 47, 48, 57, 58, 58],
     [65, 90, 91, 91, 93, 93, 95, 95],
     [97, 122, 126, 126, 33, 33, 36, 36],
     [37, 37, 38, 38, 39, 39, 40, 40],
     [41, 41, 42, 42, 43, 43, 45, 45],
     [46, 46, 47, 47, 48, 57, 58, 58],
     [59, 59, 61, 61, 62, 62, 63, 63],
     [65, 81, 82, 82, 83, 90, 91, 91],
     [93, 93, 95, 95, 97, 113, 114, 114],
     [115, 122, 126, 126, 33, 33, 36, 36],
     [37, 37, 38, 38, 39, 39, 40, 40],
     [41, 41, 42, 42, 43, 43, 45, 45],
     [46, 46, 47, 47, 48, 57, 58, 58],
     [59, 59, 61, 61, 62, 62, 63, 63],
     [65, 90, 91, 91, 93, 93, 95, 95],
     [97, 122, 126, 126, 33, 33, 36, 36],
     [37, 37, 38, 38, 39, 39, 40, 40],
     [41, 41, 42, 42, 43, 43, 45, 45],
     [46, 46, 47, 47, 48, 57, 58, 58],
     [59, 59, 61, 61, 62, 62, 63, 63],
     [65, 90, 91, 91, 93, 93, 95, 95],
     [96, 96, 97, 122, 126, 126, 33, 33],
     [36, 36, 37, 37, 38, 38, 39, 39],
     [40, 40, 41, 41, 42, 42, 43, 43],
     [45, 45, 46, 46, 47, 47, 48, 57],
     [58, 58, 59, 59, 62, 62, 63, 63],
     [65, 90, 91, 91, 93, 93, 95, 95],
     [96, 96, 97, 122, 126, 126, 33, 33],
     [37, 37, 39, 39, 42, 42, 43, 43],
     [45, 45, 46, 46, 48, 57, 59, 59],
     [62, 62, 63, 63, 65, 65, 66, 66],
     [67, 67, 68, 68, 69, 69, 70, 70],
     [71, 90, 95, 95, 96, 96, 97, 97],
     [98, 98, 99, 99, 100, 100, 101, 101],
     [102, 102, 103, 122, 126, 126, 33, 33],
     [37, 37, 39, 39, 42, 42, 43, 43],
     [45, 45, 46, 46, 48, 57, 59, 59],
     [62, 62, 63, 63, 65, 90, 95, 95],
     [96, 96, 97, 122, 126, 126, 33, 33],
     [37, 37, 39, 39, 42, 42, 43, 43],
     [45, 45, 46, 46, 48, 57, 59, 59],
     [62, 62, 63, 63, 65, 65, 66, 66],
     [67, 67, 68, 68, 69, 69, 70, 70],
     [71, 90, 95, 95, 96, 96, 97, 97],
     [98, 98, 99, 99, 100, 100, 101, 101],
     [102, 102, 103, 122, 126, 126, 33, 33],
     [36, 36, 37, 37, 38, 38, 39, 39],
     [40, 40, 41, 41, 42, 42, 43, 43],
     [45, 45, 46, 46, 47, 47, 48, 57],
     [58, 58, 59, 59, 61, 61, 62, 62],
     [63, 63, 65, 65, 66, 66, 67, 85],
     [86, 86, 87, 90, 91, 91, 93, 93],
     [95, 95, 97, 97, 98, 98, 99, 117],
     [118, 118, 119, 122, 126, 126, 33, 33],
     [36, 36, 37, 37, 38, 38, 39, 39],
     [40, 40, 41, 41, 42, 42, 43, 43],
     [45, 45, 46, 46, 47, 47, 48, 57],
     [58, 58, 59, 59, 61, 61, 62, 62],
     [63, 63, 65, 90, 91, 91, 93, 93],
     [95, 95, 97, 122, 126, 126, 33, 33],
     [36, 36, 37, 37, 38, 38, 39, 39],
     [40, 40, 41, 41, 42, 42, 43, 43],
     [45, 45, 46, 46, 47, 47, 48, 57],
     [58, 58, 59, 59, 61, 61, 62, 62],
     [63, 63, 65, 72, 73, 73, 74, 90],
     [91, 91, 93, 93, 95, 95, 97, 104],
     [105, 105, 106, 122, 126, 126, 33, 33],
     [36, 36, 37, 37, 38, 38, 39, 39]]"

definition sup_cond_keys_14 :: "int list list" where
  "sup_cond_keys_14 =
    [[40, 40, 41, 41, 42, 42, 43, 43],
     [45, 45, 46, 46, 47, 47, 48, 57],
     [58, 58, 59, 59, 61, 61, 62, 62],
     [63, 63, 65, 67, 68, 68, 69, 90],
     [91, 91, 93, 93, 95, 95, 97, 99],
     [100, 100, 101, 122, 126, 126, 33, 33],
     [36, 36, 37, 37, 38, 38, 39, 39],
     [40, 40, 41, 41, 42, 42, 43, 43],
     [45, 45, 46, 46, 47, 47, 48, 57],
     [58, 58, 59, 59, 61, 61, 62, 62],
     [63, 63, 65, 90, 91, 91, 93, 93],
     [95, 95, 97, 122, 126, 126, 33, 33],
     [36, 36, 37, 37, 38, 38, 39, 39],
     [40, 40, 41, 41, 42, 42, 43, 43],
     [45, 45, 46, 46, 47, 47, 48, 57],
     [58, 58, 59, 59, 61, 61, 62, 62],
     [63, 63, 65, 90, 91, 91, 93, 93],
     [95, 95, 96, 96, 97, 122, 126, 126],
     [33, 33, 36, 36, 37, 37, 38, 38],
     [39, 39, 40, 40, 41, 41, 42, 42],
     [43, 43, 45, 45, 46, 46, 47, 47],
     [48, 57, 58, 58, 59, 59, 62, 62],
     [63, 63, 65, 90, 91, 91, 93, 93],
     [95, 95, 96, 96, 97, 122, 126, 126],
     [33, 33, 37, 37, 39, 39, 42, 42],
     [43, 43, 45, 45, 46, 46, 48, 57],
     [59, 59, 62, 62, 63, 63, 65, 65],
     [66, 66, 67, 67, 68, 68, 69, 69],
     [70, 70, 71, 90, 95, 95, 96, 96],
     [97, 97, 98, 98, 99, 99, 100, 100],
     [101, 101, 102, 102, 103, 122, 126, 126],
     [33, 33, 37, 37, 39, 39, 42, 42],
     [43, 43, 45, 45, 46, 46, 48, 57],
     [59, 59, 62, 62, 63, 63, 65, 90],
     [95, 95, 96, 96, 97, 122, 126, 126],
     [33, 33, 37, 37, 39, 39, 42, 42],
     [43, 43, 45, 45, 46, 46, 48, 57],
     [59, 59, 62, 62, 63, 63, 65, 65],
     [66, 66, 67, 67, 68, 68, 69, 69],
     [70, 70, 71, 90, 95, 95, 96, 96],
     [97, 97, 98, 98, 99, 99, 100, 100],
     [101, 101, 102, 102, 103, 122, 126, 126],
     [33, 33, 36, 36, 37, 37, 38, 38],
     [39, 39, 40, 40, 41, 41, 42, 42],
     [43, 43, 45, 45, 46, 46, 47, 47],
     [48, 57, 58, 58, 59, 59, 61, 61],
     [62, 62, 63, 63, 65, 81, 82, 82],
     [83, 90, 91, 91, 93, 93, 95, 95],
     [97, 113, 114, 114, 115, 122, 126, 126],
     [33, 33, 36, 36, 37, 37, 38, 38],
     [39, 39, 40, 40, 41, 41, 42, 42],
     [43, 43, 45, 45, 46, 46, 47, 47],
     [48, 57, 58, 58, 59, 59, 61, 61],
     [62, 62, 63, 63, 65, 65, 66, 90],
     [91, 91, 93, 93, 95, 95, 97, 97],
     [98, 122, 126, 126, 33, 33, 36, 36],
     [37, 37, 38, 38, 39, 39, 40, 40],
     [41, 41, 42, 42, 43, 43, 45, 45],
     [46, 46, 47, 47, 48, 57, 58, 58],
     [59, 59, 61, 61, 62, 62, 63, 63],
     [65, 77, 78, 78, 79, 90, 91, 91],
     [93, 93, 95, 95, 97, 109, 110, 110],
     [111, 122, 126, 126, 33, 33, 36, 36],
     [37, 37, 38, 38, 39, 39, 40, 40],
     [41, 41, 42, 42, 43, 43, 45, 45],
     [46, 46, 47, 47, 48, 57, 58, 58],
     [59, 59, 61, 61, 62, 62, 63, 63],
     [65, 82, 83, 83, 84, 90, 91, 91],
     [93, 93, 95, 95, 97, 114, 115, 115],
     [116, 122, 126, 126, 33, 33, 36, 36],
     [37, 37, 38, 38, 39, 39, 40, 40],
     [41, 41, 42, 42, 43, 43, 45, 45],
     [46, 46, 47, 47, 48, 57, 58, 58],
     [59, 59, 61, 61, 62, 62, 63, 63],
     [65, 79, 80, 80, 81, 90, 91, 91],
     [93, 93, 95, 95, 97, 111, 112, 112],
     [113, 122, 126, 126, 33, 33, 36, 36],
     [37, 37, 38, 38, 39, 39, 40, 40],
     [41, 41, 42, 42, 43, 43, 45, 45],
     [46, 46, 47, 47, 48, 57, 58, 58],
     [59, 59, 61, 61, 62, 62, 63, 63],
     [65, 78, 79, 79, 80, 90, 91, 91],
     [93, 93, 95, 95, 97, 110, 111, 111],
     [112, 122, 126, 126, 33, 33, 36, 36],
     [37, 37, 38, 38, 39, 39, 40, 40],
     [41, 41, 42, 42, 43, 43, 45, 45],
     [46, 46, 47, 47, 48, 57, 58, 58],
     [59, 59, 61, 61, 62, 62, 63, 63],
     [65, 81, 82, 82, 83, 90, 91, 91],
     [93, 93, 95, 95, 97, 113, 114, 114],
     [115, 122, 126, 126, 33, 33, 36, 36],
     [37, 37, 38, 38, 39, 39, 40, 40],
     [41, 41, 42, 42, 43, 43, 45, 45],
     [46, 46, 47, 47, 48, 57, 58, 58],
     [59, 59, 61, 61, 62, 62, 63, 63],
     [65, 83, 84, 84, 85, 90, 91, 91],
     [93, 93, 95, 95, 97, 115, 116, 116],
     [117, 122, 126, 126, 33, 33, 36, 36],
     [37, 37, 38, 38, 39, 39, 40, 40],
     [41, 41, 42, 42, 43, 43, 45, 45],
     [46, 46, 47, 47, 48, 57, 58, 58],
     [59, 59, 61, 61, 62, 62, 63, 63],
     [65, 90, 91, 91, 93, 93, 95, 95],
     [97, 122, 126, 126, 33, 33, 36, 36],
     [37, 37, 38, 38, 39, 39, 40, 40],
     [41, 41, 42, 42, 43, 43, 45, 45],
     [46, 46, 47, 47, 48, 57, 58, 58],
     [59, 59, 61, 61, 62, 62, 63, 63],
     [65, 82, 83, 83, 84, 84, 85, 85],
     [86, 86, 87, 87, 88, 90, 91, 91],
     [93, 93, 95, 95, 96, 96, 97, 114],
     [115, 115, 116, 116, 117, 117, 118, 118],
     [119, 119, 120, 122, 126, 126, 33, 33],
     [36, 36, 37, 37, 38, 38, 39, 39],
     [40, 40, 41, 41, 42, 42, 43, 43],
     [45, 45, 46, 46, 47, 47, 48, 57],
     [58, 58, 59, 59, 62, 62, 63, 63],
     [65, 90, 91, 91, 93, 93, 95, 95],
     [96, 96, 97, 122, 126, 126, 33, 33],
     [37, 37, 39, 39, 42, 42, 43, 43],
     [45, 45, 46, 46, 48, 57, 59, 59],
     [62, 62, 63, 63, 65, 65, 66, 66],
     [67, 67, 68, 68, 69, 69, 70, 70],
     [71, 90, 95, 95, 96, 96, 97, 97],
     [98, 98, 99, 99, 100, 100, 101, 101],
     [102, 102, 103, 122, 126, 126, 33, 33],
     [37, 37, 39, 39, 42, 42, 43, 43],
     [45, 45, 46, 46, 48, 57, 59, 59],
     [62, 62, 63, 63, 65, 90, 95, 95],
     [96, 96, 97, 122, 126, 126, 33, 33],
     [37, 37, 39, 39, 42, 42, 43, 43],
     [45, 45, 46, 46, 48, 57, 59, 59],
     [62, 62, 63, 63, 65, 65, 66, 66],
     [67, 67, 68, 68, 69, 69, 70, 70],
     [71, 90, 95, 95, 96, 96, 97, 97],
     [98, 98, 99, 99, 100, 100, 101, 101],
     [102, 102, 103, 122, 126, 126, 33, 33],
     [36, 36, 37, 37, 38, 38, 39, 39],
     [40, 40, 41, 41, 42, 42, 43, 43],
     [45, 45, 46, 46, 47, 47, 48, 57],
     [58, 58, 59, 59, 62, 62, 63, 63],
     [65, 66, 67, 67, 68, 90, 91, 91],
     [93, 93, 95, 95, 96, 96, 97, 98],
     [99, 99, 100, 122, 126, 126, 33, 33],
     [36, 36, 37, 37, 38, 38, 39, 39],
     [40, 40, 41, 41, 42, 42, 43, 43],
     [45, 45, 46, 46, 47, 47, 48, 57],
     [58, 58, 59, 59, 62, 62, 63, 63],
     [65, 83, 84, 84, 85, 90, 91, 91],
     [93, 93, 95, 95, 96, 96, 97, 115]]"

definition sup_cond_keys_15 :: "int list list" where
  "sup_cond_keys_15 =
    [[116, 116, 117, 122, 126, 126, 33, 33],
     [36, 36, 37, 37, 38, 38, 39, 39],
     [40, 40, 41, 41, 42, 42, 43, 43],
     [45, 45, 46, 46, 47, 47, 48, 57],
     [58, 58, 59, 59, 62, 62, 63, 63],
     [65, 79, 80, 80, 81, 90, 91, 91],
     [93, 93, 95, 95, 96, 96, 97, 111],
     [112, 112, 113, 122, 126, 126, 33, 33],
     [36, 36, 37, 37, 38, 38, 39, 39],
     [40, 40, 41, 41, 42, 42, 43, 43],
     [45, 45, 46, 46, 47, 47, 48, 57],
     [58, 58, 59, 59, 62, 62, 63, 63],
     [65, 90, 91, 91, 93, 93, 95, 95],
     [96, 96, 97, 122, 126, 126, 33, 33],
     [36, 36, 37, 37, 38, 38, 39, 39],
     [40, 40, 41, 41, 42, 42, 43, 43],
     [45, 45, 46, 46, 47, 47, 48, 57],
     [58, 58, 59, 59, 62, 62, 63, 63],
     [65, 66, 67, 67, 68, 75, 76, 76],
     [77, 90, 91, 91, 93, 93, 95, 95],
     [96, 96, 97, 98, 99, 99, 100, 107],
     [108, 108, 109, 122, 126, 126, 33, 33],
     [36, 36, 37, 37, 38, 38, 39, 39],
     [40, 40, 41, 41, 42, 42, 43, 43],
     [45, 45, 46, 46, 47, 47, 48, 57],
     [58, 58, 59, 59, 62, 62, 63, 63],
     [65, 79, 80, 80, 81, 90, 91, 91],
     [93, 93, 95, 95, 96, 96, 97, 111],
     [112, 112, 113, 122, 126, 126, 33, 33],
     [36, 36, 37, 37, 38, 38, 39, 39],
     [40, 40, 41, 41, 42, 42, 43, 43],
     [45, 45, 46, 46, 47, 47, 48, 57],
     [58, 58, 59, 59, 62, 62, 63, 63],
     [65, 90, 91, 91, 93, 93, 95, 95],
     [96, 96, 97, 122, 126, 126, 33, 33],
     [36, 36, 37, 37, 38, 38, 39, 39],
     [40, 40, 41, 41, 42, 42, 43, 43],
     [45, 45, 46, 46, 47, 47, 48, 57],
     [58, 58, 59, 59, 62, 62, 63, 63],
     [65, 82, 83, 83, 84, 90, 91, 91],
     [93, 93, 95, 95, 96, 96, 97, 114],
     [115, 115, 116, 122, 126, 126, 33, 33],
     [36, 36, 37, 37, 38, 38, 39, 39],
     [40, 40, 41, 41, 42, 42, 43, 43],
     [45, 45, 46, 46, 47, 47, 48, 57],
     [58, 58, 59, 59, 62, 62, 63, 63],
     [65, 90, 91, 91, 93, 93, 95, 95],
     [96, 96, 97, 122, 126, 126, 33, 33],
     [36, 36, 37, 37, 38, 38, 39, 39],
     [40, 40, 41, 41, 42, 42, 43, 43],
     [45, 45, 46, 46, 47, 47, 48, 57],
     [58, 58, 59, 59, 62, 62, 63, 63],
     [65, 67, 68, 68, 69, 90, 91, 91],
     [93, 93, 95, 95, 96, 96, 97, 99],
     [100, 100, 101, 122, 126, 126, 33, 33],
     [36, 36, 37, 37, 38, 38, 39, 39],
     [40, 40, 41, 41, 42, 42, 43, 43],
     [45, 45, 46, 46, 47, 47, 48, 57],
     [58, 58, 59, 59, 62, 62, 63, 63],
     [65, 79, 80, 80, 81, 90, 91, 91],
     [93, 93, 95, 95, 96, 96, 97, 111],
     [112, 112, 113, 122, 126, 126, 33, 33],
     [36, 36, 37, 37, 38, 38, 39, 39],
     [40, 40, 41, 41, 42, 42, 43, 43],
     [45, 45, 46, 46, 47, 47, 48, 57],
     [58, 58, 59, 59, 62, 62, 63, 63],
     [65, 90, 91, 91, 93, 93, 95, 95],
     [96, 96, 97, 122, 126, 126, 33, 33],
     [36, 36, 37, 37, 38, 38, 39, 39],
     [40, 40, 41, 41, 42, 42, 43, 43],
     [45, 45, 46, 46, 47, 47, 48, 57],
     [58, 58, 59, 59, 62, 62, 63, 63],
     [65, 82, 83, 83, 84, 90, 91, 91],
     [93, 93, 95, 95, 96, 96, 97, 114],
     [115, 115, 116, 122, 126, 126, 33, 33],
     [36, 36, 37, 37, 38, 38, 39, 39],
     [40, 40, 41, 41, 42, 42, 43, 43],
     [45, 45, 46, 46, 47, 47, 48, 57],
     [58, 58, 59, 59, 62, 62, 63, 63],
     [65, 82, 83, 83, 84, 90, 91, 91],
     [93, 93, 95, 95, 96, 96, 97, 114],
     [115, 115, 116, 122, 126, 126, 33, 33],
     [36, 36, 37, 37, 38, 38, 39, 39],
     [40, 40, 41, 41, 42, 42, 43, 43],
     [45, 45, 46, 46, 47, 47, 48, 57],
     [58, 58, 59, 59, 62, 62, 63, 63],
     [65, 90, 91, 91, 93, 93, 95, 95],
     [96, 96, 97, 122, 126, 126, 48, 57],
     [59, 59, 62, 62, 63, 63, 48, 57],
     [59, 59, 62, 62, 63, 63, 48, 57],
     [59, 59, 62, 62, 63, 63, 48, 57],
     [59, 59, 62, 62, 63, 63, 48, 52],
     [53, 53, 54, 57, 59, 59, 62, 62],
     [63, 63, 48, 52, 53, 53, 54, 57],
     [59, 59, 62, 62, 63, 63, 48, 50],
     [51, 51, 52, 57, 59, 59, 62, 62],
     [63, 63, 48, 53, 59, 59, 62, 62],
     [63, 63, 48, 48, 49, 49, 50, 50],
     [51, 57, 65, 90, 97, 122, 45, 45],
     [46, 46, 48, 57, 65, 90, 95, 95],
     [97, 122, 48, 48, 49, 49, 50, 50],
     [51, 57, 65, 90, 97, 122, 45, 45],
     [46, 46, 48, 57, 65, 90, 95, 95],
     [97, 122, 48, 48, 49, 49, 50, 50],
     [51, 57, 65, 90, 97, 122, 45, 45],
     [46, 46, 48, 57, 58, 58, 59, 59],
     [62, 62, 63, 63, 65, 90, 95, 95],
     [97, 122, 45, 45, 46, 46, 48, 57],
     [58, 58, 59, 59, 62, 62, 63, 63],
     [65, 90, 95, 95, 97, 122, 45, 45],
     [46, 46, 48, 57, 58, 58, 59, 59],
     [62, 62, 63, 63, 65, 90, 95, 95],
     [97, 122, 45, 45, 46, 46, 48, 52],
     [53, 53, 54, 57, 58, 58, 59, 59],
     [62, 62, 63, 63, 65, 90, 95, 95],
     [97, 122, 45, 45, 46, 46, 48, 53],
     [54, 57, 58, 58, 59, 59, 62, 62],
     [63, 63, 65, 90, 95, 95, 97, 122],
     [45, 45, 46, 46, 48, 57, 65, 90],
     [95, 95, 97, 122, 45, 45, 46, 46],
     [48, 57, 65, 90, 95, 95, 97, 122],
     [45, 45, 46, 46, 48, 52, 53, 53],
     [54, 57, 65, 90, 95, 95, 97, 122],
     [45, 45, 46, 46, 48, 53, 54, 57],
     [65, 90, 95, 95, 97, 122, 45, 45],
     [46, 46, 48, 57, 65, 90, 95, 95],
     [97, 122, 45, 45, 46, 46, 48, 57],
     [65, 90, 95, 95, 97, 122, 45, 45],
     [46, 46, 48, 52, 53, 53, 54, 57],
     [65, 90, 95, 95, 97, 122, 45, 45],
     [46, 46, 48, 53, 54, 57, 65, 90],
     [95, 95, 97, 122, 45, 45, 46, 46],
     [48, 57, 65, 90, 95, 95, 97, 122],
     [45, 45, 46, 46, 48, 57, 65, 90],
     [95, 95, 97, 122, 45, 45, 46, 46],
     [48, 52, 53, 53, 54, 57, 65, 90],
     [95, 95, 97, 122, 45, 45, 46, 46],
     [48, 53, 54, 57, 65, 90, 95, 95],
     [97, 122, 48, 57, 58, 58, 65, 65],
     [66, 66, 67, 67, 68, 68, 69, 69],
     [70, 70, 97, 97, 98, 98, 99, 99],
     [100, 100, 101, 101, 102, 102, 48, 57],
     [58, 58, 65, 65, 66, 66, 67, 67],
     [68, 68, 69, 69, 70, 70, 97, 97],
     [98, 98, 99, 99, 100, 100, 101, 101],
     [102, 102, 48, 57, 58, 58, 65, 65],
     [66, 66, 67, 67, 68, 68, 69, 69],
     [70, 70, 97, 97, 98, 98, 99, 99],
     [100, 100, 101, 101, 102, 102, 48, 57],
     [58, 58, 65, 65, 66, 66, 67, 67]]"

definition sup_cond_keys_16 :: "int list list" where
  "sup_cond_keys_16 =
    [[68, 68, 69, 69, 70, 70, 97, 97],
     [98, 98, 99, 99, 100, 100, 101, 101],
     [102, 102, 58, 58, 48, 57, 58, 58],
     [65, 65, 66, 66, 67, 67, 68, 68],
     [69, 69, 70, 70, 97, 97, 98, 98],
     [99, 99, 100, 100, 101, 101, 102, 102],
     [48, 57, 58, 58, 65, 65, 66, 66],
     [67, 67, 68, 68, 69, 69, 70, 70],
     [97, 97, 98, 98, 99, 99, 100, 100],
     [101, 101, 102, 102, 48, 57, 58, 58],
     [65, 65, 66, 66, 67, 67, 68, 68],
     [69, 69, 70, 70, 97, 97, 98, 98],
     [99, 99, 100, 100, 101, 101, 102, 102],
     [48, 57, 58, 58, 65, 65, 66, 66],
     [67, 67, 68, 68, 69, 69, 70, 70],
     [97, 97, 98, 98, 99, 99, 100, 100],
     [101, 101, 102, 102, 58, 58, 48, 57],
     [58, 58, 65, 65, 66, 66, 67, 67],
     [68, 68, 69, 69, 70, 70, 97, 97],
     [98, 98, 99, 99, 100, 100, 101, 101],
     [102, 102, 48, 57, 58, 58, 65, 65],
     [66, 66, 67, 67, 68, 68, 69, 69],
     [70, 70, 97, 97, 98, 98, 99, 99],
     [100, 100, 101, 101, 102, 102, 48, 57],
     [58, 58, 65, 65, 66, 66, 67, 67],
     [68, 68, 69, 69, 70, 70, 97, 97],
     [98, 98, 99, 99, 100, 100, 101, 101],
     [102, 102, 48, 57, 58, 58, 65, 65],
     [66, 66, 67, 67, 68, 68, 69, 69],
     [70, 70, 97, 97, 98, 98, 99, 99],
     [100, 100, 101, 101, 102, 102, 58, 58],
     [48, 57, 58, 58, 65, 65, 66, 66],
     [67, 67, 68, 68, 69, 69, 70, 70],
     [97, 97, 98, 98, 99, 99, 100, 100],
     [101, 101, 102, 102, 48, 57, 58, 58],
     [65, 65, 66, 66, 67, 67, 68, 68],
     [69, 69, 70, 70, 97, 97, 98, 98],
     [99, 99, 100, 100, 101, 101, 102, 102],
     [48, 57, 58, 58, 65, 65, 66, 66],
     [67, 67, 68, 68, 69, 69, 70, 70],
     [97, 97, 98, 98, 99, 99, 100, 100],
     [101, 101, 102, 102, 48, 57, 58, 58],
     [65, 65, 66, 66, 67, 67, 68, 68],
     [69, 69, 70, 70, 97, 97, 98, 98],
     [99, 99, 100, 100, 101, 101, 102, 102],
     [58, 58, 48, 57, 58, 58, 65, 65],
     [66, 66, 67, 67, 68, 68, 69, 69],
     [70, 70, 97, 97, 98, 98, 99, 99],
     [100, 100, 101, 101, 102, 102, 48, 57],
     [58, 58, 65, 65, 66, 66, 67, 67],
     [68, 68, 69, 69, 70, 70, 97, 97],
     [98, 98, 99, 99, 100, 100, 101, 101],
     [102, 102, 48, 57, 58, 58, 65, 65],
     [66, 66, 67, 67, 68, 68, 69, 69],
     [70, 70, 97, 97, 98, 98, 99, 99],
     [100, 100, 101, 101, 102, 102, 48, 57],
     [58, 58, 65, 65, 66, 66, 67, 67],
     [68, 68, 69, 69, 70, 70, 97, 97],
     [98, 98, 99, 99, 100, 100, 101, 101],
     [102, 102, 58, 58, 48, 57, 58, 58],
     [65, 65, 66, 66, 67, 67, 68, 68],
     [69, 69, 70, 70, 97, 97, 98, 98],
     [99, 99, 100, 100, 101, 101, 102, 102],
     [48, 57, 58, 58, 65, 65, 66, 66],
     [67, 67, 68, 68, 69, 69, 70, 70],
     [97, 97, 98, 98, 99, 99, 100, 100],
     [101, 101, 102, 102, 48, 57, 58, 58],
     [65, 65, 66, 66, 67, 67, 68, 68],
     [69, 69, 70, 70, 97, 97, 98, 98],
     [99, 99, 100, 100, 101, 101, 102, 102],
     [48, 57, 58, 58, 65, 65, 66, 66],
     [67, 67, 68, 68, 69, 69, 70, 70],
     [97, 97, 98, 98, 99, 99, 100, 100],
     [101, 101, 102, 102, 58, 58, 48, 48],
     [49, 49, 50, 50, 51, 57, 58, 58],
     [65, 65, 66, 66, 67, 67, 68, 68],
     [69, 69, 70, 70, 97, 97, 98, 98],
     [99, 99, 100, 100, 101, 101, 102, 102],
     [46, 46, 48, 57, 58, 58, 65, 65],
     [66, 66, 67, 67, 68, 68, 69, 69],
     [70, 70, 97, 97, 98, 98, 99, 99],
     [100, 100, 101, 101, 102, 102, 48, 48],
     [49, 49, 50, 50, 51, 57, 46, 46],
     [48, 48, 49, 49, 50, 50, 51, 57],
     [46, 46, 48, 48, 49, 49, 50, 50],
     [51, 57, 93, 93, 58, 58, 59, 59],
     [62, 62, 63, 63, 48, 57, 93, 93],
     [48, 57, 93, 93, 48, 52, 53, 53],
     [54, 57, 93, 93, 48, 53, 93, 93],
     [46, 46, 48, 57, 46, 46, 48, 57],
     [46, 46, 48, 52, 53, 53, 54, 57],
     [46, 46, 48, 53, 46, 46, 48, 57],
     [46, 46, 48, 57, 46, 46, 48, 52],
     [53, 53, 54, 57, 46, 46, 48, 53],
     [48, 57, 58, 58, 65, 65, 66, 66],
     [67, 67, 68, 68, 69, 69, 70, 70],
     [97, 97, 98, 98, 99, 99, 100, 100],
     [101, 101, 102, 102, 48, 57, 58, 58],
     [65, 65, 66, 66, 67, 67, 68, 68],
     [69, 69, 70, 70, 97, 97, 98, 98],
     [99, 99, 100, 100, 101, 101, 102, 102],
     [58, 58, 48, 57, 58, 58, 65, 65],
     [66, 66, 67, 67, 68, 68, 69, 69],
     [70, 70, 97, 97, 98, 98, 99, 99],
     [100, 100, 101, 101, 102, 102, 48, 57],
     [65, 65, 66, 66, 67, 67, 68, 68],
     [69, 69, 70, 70, 93, 93, 97, 97],
     [98, 98, 99, 99, 100, 100, 101, 101],
     [102, 102, 48, 57, 65, 65, 66, 66],
     [67, 67, 68, 68, 69, 69, 70, 70],
     [93, 93, 97, 97, 98, 98, 99, 99],
     [100, 100, 101, 101, 102, 102, 48, 57],
     [65, 65, 66, 66, 67, 67, 68, 68],
     [69, 69, 70, 70, 93, 93, 97, 97],
     [98, 98, 99, 99, 100, 100, 101, 101],
     [102, 102, 46, 46, 48, 57, 58, 58],
     [65, 65, 66, 66, 67, 67, 68, 68],
     [69, 69, 70, 70, 97, 97, 98, 98],
     [99, 99, 100, 100, 101, 101, 102, 102],
     [46, 46, 48, 57, 58, 58, 65, 65],
     [66, 66, 67, 67, 68, 68, 69, 69],
     [70, 70, 97, 97, 98, 98, 99, 99],
     [100, 100, 101, 101, 102, 102, 46, 46],
     [48, 57, 58, 58, 65, 65, 66, 66],
     [67, 67, 68, 68, 69, 69, 70, 70],
     [97, 97, 98, 98, 99, 99, 100, 100],
     [101, 101, 102, 102, 46, 46, 48, 52],
     [53, 53, 54, 57, 58, 58, 65, 65],
     [66, 66, 67, 67, 68, 68, 69, 69],
     [70, 70, 97, 97, 98, 98, 99, 99],
     [100, 100, 101, 101, 102, 102, 46, 46],
     [48, 53, 54, 57, 58, 58, 65, 65],
     [66, 66, 67, 67, 68, 68, 69, 69],
     [70, 70, 97, 97, 98, 98, 99, 99],
     [100, 100, 101, 101, 102, 102, 46, 46],
     [48, 57, 58, 58, 65, 65, 66, 66],
     [67, 67, 68, 68, 69, 69, 70, 70],
     [97, 97, 98, 98, 99, 99, 100, 100],
     [101, 101, 102, 102, 46, 46, 48, 57],
     [58, 58, 65, 65, 66, 66, 67, 67],
     [68, 68, 69, 69, 70, 70, 97, 97],
     [98, 98, 99, 99, 100, 100, 101, 101],
     [102, 102, 48, 57, 65, 65, 66, 66],
     [67, 67, 68, 68, 69, 69, 70, 70],
     [93, 93, 97, 97, 98, 98, 99, 99],
     [100, 100, 101, 101, 102, 102, 48, 57],
     [58, 58, 65, 65, 66, 66, 67, 67],
     [68, 68, 69, 69, 70, 70, 97, 97],
     [98, 98, 99, 99, 100, 100, 101, 101],
     [102, 102, 48, 48, 49, 49, 50, 50]]"

definition sup_cond_keys_17 :: "int list list" where
  "sup_cond_keys_17 =
    [[51, 57, 65, 65, 66, 66, 67, 67],
     [68, 68, 69, 69, 70, 70, 93, 93],
     [97, 97, 98, 98, 99, 99, 100, 100],
     [101, 101, 102, 102, 46, 46, 48, 57],
     [58, 58, 65, 65, 66, 66, 67, 67],
     [68, 68, 69, 69, 70, 70, 93, 93],
     [97, 97, 98, 98, 99, 99, 100, 100],
     [101, 101, 102, 102, 48, 57, 58, 58],
     [65, 65, 66, 66, 67, 67, 68, 68],
     [69, 69, 70, 70, 93, 93, 97, 97],
     [98, 98, 99, 99, 100, 100, 101, 101],
     [102, 102, 48, 57, 58, 58, 65, 65],
     [66, 66, 67, 67, 68, 68, 69, 69],
     [70, 70, 93, 93, 97, 97, 98, 98],
     [99, 99, 100, 100, 101, 101, 102, 102],
     [58, 58, 93, 93, 48, 57, 65, 65],
     [66, 66, 67, 67, 68, 68, 69, 69],
     [70, 70, 97, 97, 98, 98, 99, 99],
     [100, 100, 101, 101, 102, 102, 46, 46],
     [48, 57, 58, 58, 65, 65, 66, 66],
     [67, 67, 68, 68, 69, 69, 70, 70],
     [93, 93, 97, 97, 98, 98, 99, 99],
     [100, 100, 101, 101, 102, 102, 46, 46],
     [48, 57, 58, 58, 65, 65, 66, 66],
     [67, 67, 68, 68, 69, 69, 70, 70],
     [93, 93, 97, 97, 98, 98, 99, 99],
     [100, 100, 101, 101, 102, 102, 46, 46],
     [48, 57, 58, 58, 65, 65, 66, 66],
     [67, 67, 68, 68, 69, 69, 70, 70],
     [93, 93, 97, 97, 98, 98, 99, 99],
     [100, 100, 101, 101, 102, 102, 46, 46],
     [48, 52, 53, 53, 54, 57, 58, 58],
     [65, 65, 66, 66, 67, 67, 68, 68],
     [69, 69, 70, 70, 93, 93, 97, 97],
     [98, 98, 99, 99, 100, 100, 101, 101],
     [102, 102, 46, 46, 48, 53, 54, 57],
     [58, 58, 65, 65, 66, 66, 67, 67],
     [68, 68, 69, 69, 70, 70, 93, 93],
     [97, 97, 98, 98, 99, 99, 100, 100],
     [101, 101, 102, 102, 46, 46, 48, 57],
     [58, 58, 65, 65, 66, 66, 67, 67],
     [68, 68, 69, 69, 70, 70, 93, 93],
     [97, 97, 98, 98, 99, 99, 100, 100],
     [101, 101, 102, 102, 46, 46, 48, 57],
     [58, 58, 65, 65, 66, 66, 67, 67],
     [68, 68, 69, 69, 70, 70, 93, 93],
     [97, 97, 98, 98, 99, 99, 100, 100],
     [101, 101, 102, 102, 48, 57, 58, 58],
     [65, 65, 66, 66, 67, 67, 68, 68],
     [69, 69, 70, 70, 93, 93, 97, 97],
     [98, 98, 99, 99, 100, 100, 101, 101],
     [102, 102, 48, 48, 49, 49, 50, 50],
     [51, 57, 65, 65, 66, 66, 67, 67],
     [68, 68, 69, 69, 70, 70, 93, 93],
     [97, 97, 98, 98, 99, 99, 100, 100],
     [101, 101, 102, 102, 46, 46, 48, 57],
     [58, 58, 65, 65, 66, 66, 67, 67],
     [68, 68, 69, 69, 70, 70, 93, 93],
     [97, 97, 98, 98, 99, 99, 100, 100],
     [101, 101, 102, 102, 48, 57, 58, 58],
     [65, 65, 66, 66, 67, 67, 68, 68],
     [69, 69, 70, 70, 93, 93, 97, 97],
     [98, 98, 99, 99, 100, 100, 101, 101],
     [102, 102, 48, 57, 58, 58, 65, 65],
     [66, 66, 67, 67, 68, 68, 69, 69],
     [70, 70, 93, 93, 97, 97, 98, 98],
     [99, 99, 100, 100, 101, 101, 102, 102],
     [58, 58, 93, 93, 48, 48, 49, 49],
     [50, 50, 51, 57, 65, 65, 66, 66],
     [67, 67, 68, 68, 69, 69, 70, 70],
     [97, 97, 98, 98, 99, 99, 100, 100],
     [101, 101, 102, 102, 46, 46, 48, 57],
     [58, 58, 65, 65, 66, 66, 67, 67],
     [68, 68, 69, 69, 70, 70, 93, 93],
     [97, 97, 98, 98, 99, 99, 100, 100],
     [101, 101, 102, 102, 46, 46, 48, 57],
     [58, 58, 65, 65, 66, 66, 67, 67],
     [68, 68, 69, 69, 70, 70, 93, 93],
     [97, 97, 98, 98, 99, 99, 100, 100],
     [101, 101, 102, 102, 46, 46, 48, 57],
     [58, 58, 65, 65, 66, 66, 67, 67],
     [68, 68, 69, 69, 70, 70, 93, 93],
     [97, 97, 98, 98, 99, 99, 100, 100],
     [101, 101, 102, 102, 46, 46, 48, 52],
     [53, 53, 54, 57, 58, 58, 65, 65],
     [66, 66, 67, 67, 68, 68, 69, 69],
     [70, 70, 93, 93, 97, 97, 98, 98],
     [99, 99, 100, 100, 101, 101, 102, 102],
     [46, 46, 48, 53, 54, 57, 58, 58],
     [65, 65, 66, 66, 67, 67, 68, 68],
     [69, 69, 70, 70, 93, 93, 97, 97],
     [98, 98, 99, 99, 100, 100, 101, 101],
     [102, 102, 46, 46, 48, 57, 58, 58],
     [65, 65, 66, 66, 67, 67, 68, 68],
     [69, 69, 70, 70, 93, 93, 97, 97],
     [98, 98, 99, 99, 100, 100, 101, 101],
     [102, 102, 46, 46, 48, 57, 58, 58],
     [65, 65, 66, 66, 67, 67, 68, 68],
     [69, 69, 70, 70, 93, 93, 97, 97],
     [98, 98, 99, 99, 100, 100, 101, 101],
     [102, 102, 48, 57, 58, 58, 65, 65],
     [66, 66, 67, 67, 68, 68, 69, 69],
     [70, 70, 93, 93, 97, 97, 98, 98],
     [99, 99, 100, 100, 101, 101, 102, 102],
     [48, 48, 49, 49, 50, 50, 51, 57],
     [65, 65, 66, 66, 67, 67, 68, 68],
     [69, 69, 70, 70, 93, 93, 97, 97],
     [98, 98, 99, 99, 100, 100, 101, 101],
     [102, 102, 46, 46, 48, 57, 58, 58],
     [65, 65, 66, 66, 67, 67, 68, 68],
     [69, 69, 70, 70, 93, 93, 97, 97],
     [98, 98, 99, 99, 100, 100, 101, 101],
     [102, 102, 48, 57, 58, 58, 65, 65],
     [66, 66, 67, 67, 68, 68, 69, 69],
     [70, 70, 93, 93, 97, 97, 98, 98],
     [99, 99, 100, 100, 101, 101, 102, 102],
     [48, 57, 58, 58, 65, 65, 66, 66],
     [67, 67, 68, 68, 69, 69, 70, 70],
     [93, 93, 97, 97, 98, 98, 99, 99],
     [100, 100, 101, 101, 102, 102, 58, 58],
     [93, 93, 48, 48, 49, 49, 50, 50],
     [51, 57, 65, 65, 66, 66, 67, 67],
     [68, 68, 69, 69, 70, 70, 97, 97],
     [98, 98, 99, 99, 100, 100, 101, 101],
     [102, 102, 46, 46, 48, 57, 58, 58],
     [65, 65, 66, 66, 67, 67, 68, 68],
     [69, 69, 70, 70, 93, 93, 97, 97],
     [98, 98, 99, 99, 100, 100, 101, 101],
     [102, 102, 46, 46, 48, 57, 58, 58],
     [65, 65, 66, 66, 67, 67, 68, 68],
     [69, 69, 70, 70, 93, 93, 97, 97],
     [98, 98, 99, 99, 100, 100, 101, 101],
     [102, 102, 46, 46, 48, 57, 58, 58],
     [65, 65, 66, 66, 67, 67, 68, 68],
     [69, 69, 70, 70, 93, 93, 97, 97],
     [98, 98, 99, 99, 100, 100, 101, 101],
     [102, 102, 46, 46, 48, 52, 53, 53],
     [54, 57, 58, 58, 65, 65, 66, 66],
     [67, 67, 68, 68, 69, 69, 70, 70],
     [93, 93, 97, 97, 98, 98, 99, 99],
     [100, 100, 101, 101, 102, 102, 46, 46],
     [48, 53, 54, 57, 58, 58, 65, 65],
     [66, 66, 67, 67, 68, 68, 69, 69],
     [70, 70, 93, 93, 97, 97, 98, 98],
     [99, 99, 100, 100, 101, 101, 102, 102],
     [46, 46, 48, 57, 58, 58, 65, 65],
     [66, 66, 67, 67, 68, 68, 69, 69],
     [70, 70, 93, 93, 97, 97, 98, 98],
     [99, 99, 100, 100, 101, 101, 102, 102],
     [46, 46, 48, 57, 58, 58, 65, 65]]"

definition sup_cond_keys_18 :: "int list list" where
  "sup_cond_keys_18 =
    [[66, 66, 67, 67, 68, 68, 69, 69],
     [70, 70, 93, 93, 97, 97, 98, 98],
     [99, 99, 100, 100, 101, 101, 102, 102],
     [48, 57, 58, 58, 65, 65, 66, 66],
     [67, 67, 68, 68, 69, 69, 70, 70],
     [93, 93, 97, 97, 98, 98, 99, 99],
     [100, 100, 101, 101, 102, 102, 48, 48],
     [49, 49, 50, 50, 51, 57, 65, 65],
     [66, 66, 67, 67, 68, 68, 69, 69],
     [70, 70, 93, 93, 97, 97, 98, 98],
     [99, 99, 100, 100, 101, 101, 102, 102],
     [46, 46, 48, 57, 58, 58, 65, 65],
     [66, 66, 67, 67, 68, 68, 69, 69],
     [70, 70, 93, 93, 97, 97, 98, 98],
     [99, 99, 100, 100, 101, 101, 102, 102],
     [48, 57, 58, 58, 65, 65, 66, 66],
     [67, 67, 68, 68, 69, 69, 70, 70],
     [93, 93, 97, 97, 98, 98, 99, 99],
     [100, 100, 101, 101, 102, 102, 48, 57],
     [58, 58, 65, 65, 66, 66, 67, 67],
     [68, 68, 69, 69, 70, 70, 93, 93],
     [97, 97, 98, 98, 99, 99, 100, 100],
     [101, 101, 102, 102, 58, 58, 93, 93],
     [48, 48, 49, 49, 50, 50, 51, 57],
     [65, 65, 66, 66, 67, 67, 68, 68],
     [69, 69, 70, 70, 97, 97, 98, 98],
     [99, 99, 100, 100, 101, 101, 102, 102],
     [46, 46, 48, 57, 58, 58, 65, 65],
     [66, 66, 67, 67, 68, 68, 69, 69],
     [70, 70, 93, 93, 97, 97, 98, 98],
     [99, 99, 100, 100, 101, 101, 102, 102],
     [46, 46, 48, 57, 58, 58, 65, 65],
     [66, 66, 67, 67, 68, 68, 69, 69],
     [70, 70, 93, 93, 97, 97, 98, 98],
     [99, 99, 100, 100, 101, 101, 102, 102],
     [46, 46, 48, 57, 58, 58, 65, 65],
     [66, 66, 67, 67, 68, 68, 69, 69],
     [70, 70, 93, 93, 97, 97, 98, 98],
     [99, 99, 100, 100, 101, 101, 102, 102],
     [46, 46, 48, 52, 53, 53, 54, 57],
     [58, 58, 65, 65, 66, 66, 67, 67],
     [68, 68, 69, 69, 70, 70, 93, 93],
     [97, 97, 98, 98, 99, 99, 100, 100],
     [101, 101, 102, 102, 46, 46, 48, 53],
     [54, 57, 58, 58, 65, 65, 66, 66],
     [67, 67, 68, 68, 69, 69, 70, 70],
     [93, 93, 97, 97, 98, 98, 99, 99],
     [100, 100, 101, 101, 102, 102, 46, 46],
     [48, 57, 58, 58, 65, 65, 66, 66],
     [67, 67, 68, 68, 69, 69, 70, 70],
     [93, 93, 97, 97, 98, 98, 99, 99],
     [100, 100, 101, 101, 102, 102, 46, 46],
     [48, 57, 58, 58, 65, 65, 66, 66],
     [67, 67, 68, 68, 69, 69, 70, 70],
     [93, 93, 97, 97, 98, 98, 99, 99],
     [100, 100, 101, 101, 102, 102, 48, 57],
     [58, 58, 65, 65, 66, 66, 67, 67],
     [68, 68, 69, 69, 70, 70, 93, 93],
     [97, 97, 98, 98, 99, 99, 100, 100],
     [101, 101, 102, 102, 48, 48, 49, 49],
     [50, 50, 51, 57, 65, 65, 66, 66],
     [67, 67, 68, 68, 69, 69, 70, 70],
     [93, 93, 97, 97, 98, 98, 99, 99],
     [100, 100, 101, 101, 102, 102, 46, 46],
     [48, 57, 58, 58, 65, 65, 66, 66],
     [67, 67, 68, 68, 69, 69, 70, 70],
     [93, 93, 97, 97, 98, 98, 99, 99],
     [100, 100, 101, 101, 102, 102, 48, 57],
     [58, 58, 65, 65, 66, 66, 67, 67],
     [68, 68, 69, 69, 70, 70, 93, 93],
     [97, 97, 98, 98, 99, 99, 100, 100],
     [101, 101, 102, 102, 48, 57, 58, 58],
     [65, 65, 66, 66, 67, 67, 68, 68],
     [69, 69, 70, 70, 93, 93, 97, 97],
     [98, 98, 99, 99, 100, 100, 101, 101],
     [102, 102, 58, 58, 93, 93, 48, 48],
     [49, 49, 50, 50, 51, 57, 65, 65],
     [66, 66, 67, 67, 68, 68, 69, 69],
     [70, 70, 97, 97, 98, 98, 99, 99],
     [100, 100, 101, 101, 102, 102, 46, 46],
     [48, 57, 58, 58, 65, 65, 66, 66],
     [67, 67, 68, 68, 69, 69, 70, 70],
     [93, 93, 97, 97, 98, 98, 99, 99],
     [100, 100, 101, 101, 102, 102, 46, 46],
     [48, 57, 58, 58, 65, 65, 66, 66],
     [67, 67, 68, 68, 69, 69, 70, 70],
     [93, 93, 97, 97, 98, 98, 99, 99],
     [100, 100, 101, 101, 102, 102, 46, 46],
     [48, 57, 58, 58, 65, 65, 66, 66],
     [67, 67, 68, 68, 69, 69, 70, 70],
     [93, 93, 97, 97, 98, 98, 99, 99],
     [100, 100, 101, 101, 102, 102, 46, 46],
     [48, 52, 53, 53, 54, 57, 58, 58],
     [65, 65, 66, 66, 67, 67, 68, 68],
     [69, 69, 70, 70, 93, 93, 97, 97],
     [98, 98, 99, 99, 100, 100, 101, 101],
     [102, 102, 46, 46, 48, 53, 54, 57],
     [58, 58, 65, 65, 66, 66, 67, 67],
     [68, 68, 69, 69, 70, 70, 93, 93],
     [97, 97, 98, 98, 99, 99, 100, 100],
     [101, 101, 102, 102, 46, 46, 48, 57],
     [58, 58, 65, 65, 66, 66, 67, 67],
     [68, 68, 69, 69, 70, 70, 93, 93],
     [97, 97, 98, 98, 99, 99, 100, 100],
     [101, 101, 102, 102, 46, 46, 48, 57],
     [58, 58, 65, 65, 66, 66, 67, 67],
     [68, 68, 69, 69, 70, 70, 93, 93],
     [97, 97, 98, 98, 99, 99, 100, 100],
     [101, 101, 102, 102, 48, 57, 58, 58],
     [65, 65, 66, 66, 67, 67, 68, 68],
     [69, 69, 70, 70, 93, 93, 97, 97],
     [98, 98, 99, 99, 100, 100, 101, 101],
     [102, 102, 58, 58, 48, 48, 49, 49],
     [50, 50, 51, 57, 65, 65, 66, 66],
     [67, 67, 68, 68, 69, 69, 70, 70],
     [93, 93, 97, 97, 98, 98, 99, 99],
     [100, 100, 101, 101, 102, 102, 46, 46],
     [48, 57, 58, 58, 65, 65, 66, 66],
     [67, 67, 68, 68, 69, 69, 70, 70],
     [93, 93, 97, 97, 98, 98, 99, 99],
     [100, 100, 101, 101, 102, 102, 48, 57],
     [58, 58, 65, 65, 66, 66, 67, 67],
     [68, 68, 69, 69, 70, 70, 93, 93],
     [97, 97, 98, 98, 99, 99, 100, 100],
     [101, 101, 102, 102, 48, 57, 58, 58],
     [65, 65, 66, 66, 67, 67, 68, 68],
     [69, 69, 70, 70, 93, 93, 97, 97],
     [98, 98, 99, 99, 100, 100, 101, 101],
     [102, 102, 58, 58, 93, 93, 48, 48],
     [49, 49, 50, 50, 51, 57, 65, 65],
     [66, 66, 67, 67, 68, 68, 69, 69],
     [70, 70, 97, 97, 98, 98, 99, 99],
     [100, 100, 101, 101, 102, 102, 46, 46],
     [48, 57, 58, 58, 65, 65, 66, 66],
     [67, 67, 68, 68, 69, 69, 70, 70],
     [93, 93, 97, 97, 98, 98, 99, 99],
     [100, 100, 101, 101, 102, 102, 46, 46],
     [48, 57, 58, 58, 65, 65, 66, 66],
     [67, 67, 68, 68, 69, 69, 70, 70],
     [93, 93, 97, 97, 98, 98, 99, 99],
     [100, 100, 101, 101, 102, 102, 46, 46],
     [48, 57, 58, 58, 65, 65, 66, 66],
     [67, 67, 68, 68, 69, 69, 70, 70],
     [93, 93, 97, 97, 98, 98, 99, 99],
     [100, 100, 101, 101, 102, 102, 46, 46],
     [48, 52, 53, 53, 54, 57, 58, 58],
     [65, 65, 66, 66, 67, 67, 68, 68],
     [69, 69, 70, 70, 93, 93, 97, 97],
     [98, 98, 99, 99, 100, 100, 101, 101],
     [102, 102, 46, 46, 48, 53, 54, 57]]"

definition sup_cond_keys_19 :: "int list list" where
  "sup_cond_keys_19 =
    [[58, 58, 65, 65, 66, 66, 67, 67],
     [68, 68, 69, 69, 70, 70, 93, 93],
     [97, 97, 98, 98, 99, 99, 100, 100],
     [101, 101, 102, 102, 46, 46, 48, 57],
     [58, 58, 65, 65, 66, 66, 67, 67],
     [68, 68, 69, 69, 70, 70, 93, 93],
     [97, 97, 98, 98, 99, 99, 100, 100],
     [101, 101, 102, 102, 46, 46, 48, 57],
     [58, 58, 65, 65, 66, 66, 67, 67],
     [68, 68, 69, 69, 70, 70, 93, 93],
     [97, 97, 98, 98, 99, 99, 100, 100],
     [101, 101, 102, 102, 48, 57, 58, 58],
     [65, 65, 66, 66, 67, 67, 68, 68],
     [69, 69, 70, 70, 93, 93, 97, 97],
     [98, 98, 99, 99, 100, 100, 101, 101],
     [102, 102, 33, 33, 35, 35, 36, 36],
     [37, 37, 38, 38, 39, 39, 40, 40],
     [41, 41, 42, 42, 43, 43, 44, 44],
     [45, 45, 46, 46, 47, 47, 48, 57],
     [58, 58, 59, 59, 61, 61, 63, 63],
     [64, 64, 65, 90, 95, 95, 97, 122],
     [126, 126, 33, 33, 35, 35, 36, 36],
     [37, 37, 38, 38, 39, 39, 40, 40],
     [41, 41, 42, 42, 43, 43, 44, 44],
     [45, 45, 46, 46, 47, 47, 48, 57],
     [58, 58, 59, 59, 61, 61, 63, 63],
     [64, 64, 65, 90, 95, 95, 97, 122],
     [126, 126, 33, 33, 35, 35, 36, 36],
     [37, 37, 38, 38, 39, 39, 40, 40],
     [41, 41, 42, 42, 43, 43, 44, 44],
     [45, 45, 46, 46, 47, 47, 48, 57],
     [58, 58, 59, 59, 61, 61, 63, 63],
     [64, 64, 65, 90, 95, 95, 97, 122],
     [126, 126, 33, 33, 35, 35, 36, 36],
     [37, 37, 38, 38, 39, 39, 40, 40],
     [41, 41, 42, 42, 43, 43, 44, 44],
     [45, 45, 46, 46, 47, 47, 48, 57],
     [58, 58, 59, 59, 61, 61, 63, 63],
     [64, 64, 65, 90, 95, 95, 97, 122],
     [126, 126, 33, 33, 35, 35, 36, 36],
     [37, 37, 38, 38, 39, 39, 40, 40],
     [41, 41, 42, 42, 43, 43, 44, 44],
     [45, 45, 46, 46, 47, 47, 48, 57],
     [58, 58, 59, 59, 61, 61, 62, 62],
     [63, 63, 64, 64, 65, 90, 95, 95],
     [97, 122, 126, 126, 33, 33, 35, 35],
     [36, 36, 37, 37, 38, 38, 39, 39],
     [40, 40, 41, 41, 42, 42, 43, 43],
     [44, 44, 45, 45, 46, 46, 47, 47],
     [48, 57, 58, 58, 59, 59, 61, 61],
     [63, 63, 64, 64, 65, 90, 95, 95],
     [97, 122, 126, 126, 33, 33, 35, 35],
     [36, 36, 37, 37, 38, 38, 39, 39],
     [40, 40, 41, 41, 42, 42, 43, 43],
     [44, 44, 45, 45, 46, 46, 47, 47],
     [48, 57, 58, 58, 59, 59, 61, 61],
     [62, 62, 63, 63, 64, 64, 65, 90],
     [95, 95, 97, 122, 126, 126, 33, 33],
     [36, 36, 37, 37, 38, 38, 39, 39],
     [40, 40, 41, 41, 42, 42, 43, 43],
     [44, 44, 45, 45, 46, 46, 48, 48],
     [49, 53, 54, 54, 55, 57, 61, 61],
     [64, 64, 65, 90, 95, 95, 97, 122],
     [126, 126, 33, 33, 36, 36, 37, 37],
     [38, 38, 39, 39, 40, 40, 41, 41],
     [42, 42, 43, 43, 44, 44, 45, 45],
     [46, 46, 48, 48, 49, 57, 61, 61],
     [64, 64, 65, 90, 95, 95, 97, 122],
     [126, 126, 33, 33, 36, 36, 37, 37],
     [38, 38, 39, 39, 40, 40, 41, 41],
     [42, 42, 43, 43, 44, 44, 45, 45],
     [46, 46, 48, 48, 49, 57, 61, 61],
     [64, 64, 65, 90, 95, 95, 97, 122],
     [126, 126, 33, 33, 36, 36, 37, 37],
     [38, 38, 39, 39, 40, 40, 41, 41],
     [42, 42, 43, 43, 44, 44, 45, 45],
     [46, 46, 48, 48, 49, 57, 61, 61],
     [64, 64, 65, 90, 95, 95, 97, 122],
     [126, 126, 33, 33, 36, 36, 37, 37],
     [38, 38, 39, 39, 40, 40, 41, 41],
     [42, 42, 43, 43, 44, 44, 45, 45],
     [46, 46, 48, 57, 59, 59, 61, 61],
     [62, 62, 63, 63, 64, 64, 65, 90],
     [95, 95, 97, 122, 126, 126, 33, 33],
     [36, 36, 37, 37, 38, 38, 39, 39],
     [40, 40, 41, 41, 42, 42, 43, 43],
     [44, 44, 45, 45, 46, 46, 48, 57],
     [59, 59, 61, 61, 62, 62, 63, 63],
     [64, 64, 65, 90, 95, 95, 97, 122],
     [126, 126, 33, 33, 36, 36, 37, 37],
     [38, 38, 39, 39, 40, 40, 41, 41],
     [42, 42, 43, 43, 44, 44, 45, 45],
     [46, 46, 48, 57, 59, 59, 61, 61],
     [62, 62, 63, 63, 64, 64, 65, 90],
     [95, 95, 97, 122, 126, 126, 33, 33],
     [36, 36, 37, 37, 38, 38, 39, 39],
     [40, 40, 41, 41, 42, 42, 43, 43],
     [44, 44, 45, 45, 46, 46, 48, 57],
     [59, 59, 61, 61, 62, 62, 63, 63],
     [64, 64, 65, 90, 95, 95, 97, 122],
     [126, 126, 33, 33, 36, 36, 37, 37],
     [38, 38, 39, 39, 40, 40, 41, 41],
     [42, 42, 43, 43, 44, 44, 45, 45],
     [46, 46, 48, 57, 59, 59, 61, 61],
     [62, 62, 63, 63, 64, 64, 65, 90],
     [95, 95, 97, 122, 126, 126, 33, 33],
     [36, 36, 37, 37, 38, 38, 39, 39],
     [40, 40, 41, 41, 42, 42, 43, 43],
     [44, 44, 45, 45, 46, 46, 48, 52],
     [53, 53, 54, 57, 59, 59, 61, 61],
     [62, 62, 63, 63, 64, 64, 65, 90],
     [95, 95, 97, 122, 126, 126, 33, 33],
     [36, 36, 37, 37, 38, 38, 39, 39],
     [40, 40, 41, 41, 42, 42, 43, 43],
     [44, 44, 45, 45, 46, 46, 48, 52],
     [53, 53, 54, 57, 59, 59, 61, 61],
     [62, 62, 63, 63, 64, 64, 65, 90],
     [95, 95, 97, 122, 126, 126, 33, 33],
     [36, 36, 37, 37, 38, 38, 39, 39],
     [40, 40, 41, 41, 42, 42, 43, 43],
     [44, 44, 45, 45, 46, 46, 48, 50],
     [51, 51, 52, 57, 59, 59, 61, 61],
     [62, 62, 63, 63, 64, 64, 65, 90],
     [95, 95, 97, 122, 126, 126, 33, 33],
     [36, 36, 37, 37, 38, 38, 39, 39],
     [40, 40, 41, 41, 42, 42, 43, 43],
     [44, 44, 45, 45, 46, 46, 48, 53],
     [54, 57, 59, 59, 61, 61, 62, 62],
     [63, 63, 64, 64, 65, 90, 95, 95],
     [97, 122, 126, 126, 33, 33, 35, 35],
     [36, 36, 37, 37, 38, 38, 39, 39],
     [40, 40, 41, 41, 42, 42, 43, 43],
     [44, 44, 45, 45, 46, 46, 47, 47],
     [48, 57, 58, 58, 59, 59, 61, 61],
     [63, 63, 64, 64, 65, 75, 76, 76],
     [77, 78, 79, 79, 80, 83, 84, 84],
     [85, 90, 91, 91, 93, 93, 95, 95],
     [97, 107, 108, 108, 109, 110, 111, 111],
     [112, 115, 116, 116, 117, 122, 126, 126],
     [33, 33, 35, 35, 36, 36, 37, 37],
     [38, 38, 39, 39, 40, 40, 41, 41],
     [42, 42, 43, 43, 44, 44, 45, 45],
     [46, 46, 47, 47, 48, 57, 58, 58],
     [59, 59, 61, 61, 62, 62, 63, 63],
     [64, 64, 65, 90, 91, 91, 93, 93],
     [95, 95, 97, 122, 126, 126, 48, 57],
     [65, 65, 66, 66, 67, 67, 68, 68],
     [69, 69, 70, 70, 97, 97, 98, 98],
     [99, 99, 100, 100, 101, 101, 102, 102],
     [48, 57, 65, 65, 66, 66, 67, 67]]"

definition sup_cond_keys_20 :: "int list list" where
  "sup_cond_keys_20 =
    [[68, 68, 69, 69, 70, 70, 97, 97],
     [98, 98, 99, 99, 100, 100, 101, 101],
     [102, 102, 33, 33, 36, 36, 37, 37],
     [38, 38, 39, 39, 40, 40, 41, 41],
     [42, 42, 43, 43, 44, 44, 45, 45],
     [46, 46, 47, 47, 48, 57, 58, 58],
     [59, 59, 61, 61, 62, 62, 63, 63],
     [64, 64, 65, 90, 91, 91, 93, 93],
     [95, 95, 97, 122, 126, 126, 48, 57],
     [65, 65, 66, 66, 67, 67, 68, 68],
     [69, 69, 70, 70, 97, 97, 98, 98],
     [99, 99, 100, 100, 101, 101, 102, 102],
     [48, 57, 65, 65, 66, 66, 67, 67],
     [68, 68, 69, 69, 70, 70, 97, 97],
     [98, 98, 99, 99, 100, 100, 101, 101],
     [102, 102, 33, 33, 36, 36, 37, 37],
     [38, 38, 39, 39, 40, 40, 41, 41],
     [42, 42, 43, 43, 44, 44, 45, 45],
     [46, 46, 47, 47, 48, 57, 58, 58],
     [59, 59, 61, 61, 62, 62, 63, 63],
     [64, 64, 65, 90, 91, 91, 93, 93],
     [95, 95, 97, 122, 126, 126, 33, 33],
     [36, 36, 37, 37, 38, 38, 39, 39],
     [40, 40, 41, 41, 42, 42, 43, 43],
     [44, 44, 45, 45, 46, 46, 47, 47],
     [48, 57, 58, 58, 59, 59, 61, 61],
     [62, 62, 63, 63, 64, 64, 65, 90],
     [91, 91, 93, 93, 95, 95, 97, 122],
     [126, 126, 48, 57, 65, 65, 66, 66],
     [67, 67, 68, 68, 69, 69, 70, 70],
     [97, 97, 98, 98, 99, 99, 100, 100],
     [101, 101, 102, 102, 48, 57, 65, 65],
     [66, 66, 67, 67, 68, 68, 69, 69],
     [70, 70, 97, 97, 98, 98, 99, 99],
     [100, 100, 101, 101, 102, 102, 33, 33],
     [36, 36, 37, 37, 38, 38, 39, 39],
     [40, 40, 41, 41, 42, 42, 43, 43],
     [44, 44, 45, 45, 46, 46, 47, 47],
     [48, 57, 58, 58, 61, 61, 64, 64],
     [65, 90, 91, 91, 93, 93, 95, 95],
     [97, 122, 126, 126, 33, 33, 35, 35],
     [36, 36, 37, 37, 38, 38, 39, 39],
     [40, 40, 41, 41, 42, 42, 43, 43],
     [44, 44, 45, 45, 46, 46, 47, 47],
     [48, 57, 58, 58, 59, 59, 61, 61],
     [62, 62, 63, 63, 64, 64, 65, 90],
     [91, 91, 93, 93, 95, 95, 97, 122],
     [126, 126, 33, 33, 35, 35, 36, 36],
     [37, 37, 38, 38, 39, 39, 40, 40],
     [41, 41, 42, 42, 43, 43, 44, 44],
     [45, 45, 46, 46, 47, 47, 48, 57],
     [58, 58, 59, 59, 61, 61, 62, 62],
     [63, 63, 64, 64, 65, 90, 91, 91],
     [93, 93, 95, 95, 97, 122, 126, 126],
     [48, 57, 65, 65, 66, 66, 67, 67],
     [68, 68, 69, 69, 70, 70, 97, 97],
     [98, 98, 99, 99, 100, 100, 101, 101],
     [102, 102, 48, 57, 65, 65, 66, 66],
     [67, 67, 68, 68, 69, 69, 70, 70],
     [97, 97, 98, 98, 99, 99, 100, 100],
     [101, 101, 102, 102, 33, 33, 35, 35],
     [36, 36, 37, 37, 38, 38, 39, 39],
     [40, 40, 41, 41, 42, 42, 43, 43],
     [44, 44, 45, 45, 46, 46, 47, 47],
     [48, 57, 58, 58, 59, 59, 61, 61],
     [63, 63, 64, 64, 65, 90, 91, 91],
     [93, 93, 95, 95, 97, 122, 126, 126],
     [33, 33, 35, 35, 36, 36, 37, 37],
     [38, 38, 39, 39, 40, 40, 41, 41],
     [42, 42, 43, 43, 44, 44, 45, 45],
     [46, 46, 47, 47, 48, 57, 58, 58],
     [59, 59, 61, 61, 63, 63, 64, 64],
     [65, 90, 91, 91, 93, 93, 95, 95],
     [97, 122, 126, 126, 48, 57, 65, 65],
     [66, 66, 67, 67, 68, 68, 69, 69],
     [70, 70, 97, 97, 98, 98, 99, 99],
     [100, 100, 101, 101, 102, 102, 48, 57],
     [65, 65, 66, 66, 67, 67, 68, 68],
     [69, 69, 70, 70, 97, 97, 98, 98],
     [99, 99, 100, 100, 101, 101, 102, 102],
     [33, 33, 36, 36, 37, 37, 38, 38],
     [39, 39, 40, 40, 41, 41, 42, 42],
     [43, 43, 44, 44, 45, 45, 46, 46],
     [47, 47, 48, 57, 58, 58, 61, 61],
     [63, 63, 64, 64, 65, 90, 91, 91],
     [93, 93, 95, 95, 97, 122, 126, 126],
     [48, 57, 65, 65, 66, 66, 67, 67],
     [68, 68, 69, 69, 70, 70, 97, 97],
     [98, 98, 99, 99, 100, 100, 101, 101],
     [102, 102, 48, 57, 65, 65, 66, 66],
     [67, 67, 68, 68, 69, 69, 70, 70],
     [97, 97, 98, 98, 99, 99, 100, 100],
     [101, 101, 102, 102, 33, 33, 36, 36],
     [37, 37, 38, 38, 39, 39, 40, 40],
     [41, 41, 42, 42, 43, 43, 44, 44],
     [45, 45, 46, 46, 47, 47, 48, 57],
     [58, 58, 61, 61, 62, 62, 63, 63],
     [64, 64, 65, 90, 91, 91, 93, 93],
     [95, 95, 97, 122, 126, 126, 48, 57],
     [65, 65, 66, 66, 67, 67, 68, 68],
     [69, 69, 70, 70, 97, 97, 98, 98],
     [99, 99, 100, 100, 101, 101, 102, 102],
     [48, 57, 65, 65, 66, 66, 67, 67],
     [68, 68, 69, 69, 70, 70, 97, 97],
     [98, 98, 99, 99, 100, 100, 101, 101],
     [102, 102, 33, 33, 36, 36, 37, 37],
     [38, 38, 39, 39, 40, 40, 41, 41],
     [42, 42, 43, 43, 44, 44, 45, 45],
     [46, 46, 47, 47, 48, 57, 58, 58],
     [61, 61, 63, 63, 64, 64, 65, 90],
     [91, 91, 93, 93, 95, 95, 97, 122],
     [126, 126, 33, 33, 35, 35, 36, 36],
     [37, 37, 38, 38, 39, 39, 40, 40],
     [41, 41, 42, 42, 43, 43, 44, 44],
     [45, 45, 46, 46, 47, 47, 48, 57],
     [58, 58, 59, 59, 61, 61, 62, 62],
     [63, 63, 64, 64, 65, 90, 91, 91],
     [93, 93, 95, 95, 97, 122, 126, 126],
     [48, 57, 65, 65, 66, 66, 67, 67],
     [68, 68, 69, 69, 70, 70, 97, 97],
     [98, 98, 99, 99, 100, 100, 101, 101],
     [102, 102, 48, 57, 65, 65, 66, 66],
     [67, 67, 68, 68, 69, 69, 70, 70],
     [97, 97, 98, 98, 99, 99, 100, 100],
     [101, 101, 102, 102, 33, 33, 35, 35],
     [36, 36, 37, 37, 38, 38, 39, 39],
     [40, 40, 41, 41, 42, 42, 43, 43],
     [44, 44, 45, 45, 46, 46, 47, 47],
     [48, 57, 58, 58, 59, 59, 61, 61],
     [63, 63, 64, 64, 65, 90, 91, 91],
     [93, 93, 95, 95, 97, 122, 126, 126],
     [33, 33, 35, 35, 36, 36, 37, 37],
     [38, 38, 39, 39, 40, 40, 41, 41],
     [42, 42, 43, 43, 44, 44, 45, 45],
     [46, 46, 47, 47, 48, 57, 58, 58],
     [59, 59, 61, 61, 62, 62, 63, 63],
     [64, 64, 65, 81, 82, 82, 83, 90],
     [91, 91, 93, 93, 95, 95, 97, 113],
     [114, 114, 115, 122, 126, 126, 33, 33],
     [35, 35, 36, 36, 37, 37, 38, 38],
     [39, 39, 40, 40, 41, 41, 42, 42],
     [43, 43, 44, 44, 45, 45, 46, 46],
     [47, 47, 48, 57, 58, 58, 59, 59],
     [61, 61, 62, 62, 63, 63, 64, 64],
     [65, 90, 91, 91, 93, 93, 95, 95],
     [97, 122, 126, 126, 33, 33, 35, 35],
     [36, 36, 37, 37, 38, 38, 39, 39],
     [40, 40, 41, 41, 42, 42, 43, 43],
     [44, 44, 45, 45, 46, 46, 47, 47],
     [48, 57, 58, 58, 59, 59, 61, 61]]"

definition sup_cond_keys_21 :: "int list list" where
  "sup_cond_keys_21 =
    [[62, 62, 63, 63, 64, 64, 65, 90],
     [91, 91, 93, 93, 95, 95, 96, 96],
     [97, 122, 126, 126, 33, 33, 35, 35],
     [36, 36, 37, 37, 38, 38, 39, 39],
     [40, 40, 41, 41, 42, 42, 43, 43],
     [44, 44, 45, 45, 46, 46, 47, 47],
     [48, 57, 58, 58, 59, 59, 61, 61],
     [62, 62, 63, 63, 64, 64, 65, 90],
     [91, 91, 93, 93, 95, 95, 96, 96],
     [97, 122, 126, 126, 33, 33, 37, 37],
     [39, 39, 42, 42, 43, 43, 45, 45],
     [46, 46, 48, 57, 59, 59, 62, 62],
     [63, 63, 65, 65, 66, 66, 67, 67],
     [68, 68, 69, 69, 70, 70, 71, 90],
     [95, 95, 96, 96, 97, 97, 98, 98],
     [99, 99, 100, 100, 101, 101, 102, 102],
     [103, 122, 126, 126, 33, 33, 37, 37],
     [39, 39, 42, 42, 43, 43, 45, 45],
     [46, 46, 48, 57, 59, 59, 62, 62],
     [63, 63, 65, 65, 66, 66, 67, 67],
     [68, 68, 69, 69, 70, 70, 71, 90],
     [95, 95, 96, 96, 97, 97, 98, 98],
     [99, 99, 100, 100, 101, 101, 102, 102],
     [103, 122, 126, 126, 33, 33, 35, 35],
     [36, 36, 37, 37, 38, 38, 39, 39],
     [40, 40, 41, 41, 42, 42, 43, 43],
     [44, 44, 45, 45, 46, 46, 47, 47],
     [48, 57, 58, 58, 59, 59, 61, 61],
     [62, 62, 63, 63, 64, 64, 65, 65],
     [66, 66, 67, 85, 86, 86, 87, 90],
     [91, 91, 93, 93, 95, 95, 97, 97],
     [98, 98, 99, 117, 118, 118, 119, 122],
     [126, 126, 33, 33, 35, 35, 36, 36],
     [37, 37, 38, 38, 39, 39, 40, 40],
     [41, 41, 42, 42, 43, 43, 44, 44],
     [45, 45, 46, 46, 47, 47, 48, 57],
     [58, 58, 59, 59, 61, 61, 62, 62],
     [63, 63, 64, 64, 65, 90, 91, 91],
     [93, 93, 95, 95, 97, 122, 126, 126],
     [33, 33, 35, 35, 36, 36, 37, 37],
     [38, 38, 39, 39, 40, 40, 41, 41],
     [42, 42, 43, 43, 44, 44, 45, 45],
     [46, 46, 47, 47, 48, 57, 58, 58],
     [59, 59, 61, 61, 62, 62, 63, 63],
     [64, 64, 65, 72, 73, 73, 74, 90],
     [91, 91, 93, 93, 95, 95, 97, 104],
     [105, 105, 106, 122, 126, 126, 33, 33],
     [35, 35, 36, 36, 37, 37, 38, 38],
     [39, 39, 40, 40, 41, 41, 42, 42],
     [43, 43, 44, 44, 45, 45, 46, 46],
     [47, 47, 48, 57, 58, 58, 59, 59],
     [61, 61, 62, 62, 63, 63, 64, 64],
     [65, 67, 68, 68, 69, 90, 91, 91],
     [93, 93, 95, 95, 97, 99, 100, 100],
     [101, 122, 126, 126, 33, 33, 35, 35],
     [36, 36, 37, 37, 38, 38, 39, 39],
     [40, 40, 41, 41, 42, 42, 43, 43],
     [44, 44, 45, 45, 46, 46, 47, 47],
     [48, 57, 58, 58, 59, 59, 61, 61],
     [62, 62, 63, 63, 64, 64, 65, 90],
     [91, 91, 93, 93, 95, 95, 97, 122],
     [126, 126, 33, 33, 35, 35, 36, 36],
     [37, 37, 38, 38, 39, 39, 40, 40],
     [41, 41, 42, 42, 43, 43, 44, 44],
     [45, 45, 46, 46, 47, 47, 48, 57],
     [58, 58, 59, 59, 61, 61, 62, 62],
     [63, 63, 64, 64, 65, 90, 91, 91],
     [93, 93, 95, 95, 96, 96, 97, 122],
     [126, 126, 33, 33, 35, 35, 36, 36],
     [37, 37, 38, 38, 39, 39, 40, 40],
     [41, 41, 42, 42, 43, 43, 44, 44],
     [45, 45, 46, 46, 47, 47, 48, 57],
     [58, 58, 59, 59, 61, 61, 62, 62],
     [63, 63, 64, 64, 65, 90, 91, 91],
     [93, 93, 95, 95, 96, 96, 97, 122],
     [126, 126, 33, 33, 37, 37, 39, 39],
     [42, 42, 43, 43, 45, 45, 46, 46],
     [48, 57, 59, 59, 62, 62, 63, 63],
     [65, 65, 66, 66, 67, 67, 68, 68],
     [69, 69, 70, 70, 71, 90, 95, 95],
     [96, 96, 97, 97, 98, 98, 99, 99],
     [100, 100, 101, 101, 102, 102, 103, 122],
     [126, 126, 33, 33, 37, 37, 39, 39],
     [42, 42, 43, 43, 45, 45, 46, 46],
     [48, 57, 59, 59, 62, 62, 63, 63],
     [65, 65, 66, 66, 67, 67, 68, 68],
     [69, 69, 70, 70, 71, 90, 95, 95],
     [96, 96, 97, 97, 98, 98, 99, 99],
     [100, 100, 101, 101, 102, 102, 103, 122],
     [126, 126, 33, 33, 35, 35, 36, 36],
     [37, 37, 38, 38, 39, 39, 40, 40],
     [41, 41, 42, 42, 43, 43, 44, 44],
     [45, 45, 46, 46, 47, 47, 48, 57],
     [58, 58, 59, 59, 61, 61, 62, 62],
     [63, 63, 64, 64, 65, 81, 82, 82],
     [83, 90, 91, 91, 93, 93, 95, 95],
     [97, 113, 114, 114, 115, 122, 126, 126],
     [33, 33, 35, 35, 36, 36, 37, 37],
     [38, 38, 39, 39, 40, 40, 41, 41],
     [42, 42, 43, 43, 44, 44, 45, 45],
     [46, 46, 47, 47, 48, 57, 58, 58],
     [59, 59, 61, 61, 62, 62, 63, 63],
     [64, 64, 65, 65, 66, 90, 91, 91],
     [93, 93, 95, 95, 97, 97, 98, 122],
     [126, 126, 33, 33, 35, 35, 36, 36],
     [37, 37, 38, 38, 39, 39, 40, 40],
     [41, 41, 42, 42, 43, 43, 44, 44],
     [45, 45, 46, 46, 47, 47, 48, 57],
     [58, 58, 59, 59, 61, 61, 62, 62],
     [63, 63, 64, 64, 65, 77, 78, 78],
     [79, 90, 91, 91, 93, 93, 95, 95],
     [97, 109, 110, 110, 111, 122, 126, 126],
     [33, 33, 35, 35, 36, 36, 37, 37],
     [38, 38, 39, 39, 40, 40, 41, 41],
     [42, 42, 43, 43, 44, 44, 45, 45],
     [46, 46, 47, 47, 48, 57, 58, 58],
     [59, 59, 61, 61, 62, 62, 63, 63],
     [64, 64, 65, 82, 83, 83, 84, 90],
     [91, 91, 93, 93, 95, 95, 97, 114],
     [115, 115, 116, 122, 126, 126, 33, 33],
     [35, 35, 36, 36, 37, 37, 38, 38],
     [39, 39, 40, 40, 41, 41, 42, 42],
     [43, 43, 44, 44, 45, 45, 46, 46],
     [47, 47, 48, 57, 58, 58, 59, 59],
     [61, 61, 62, 62, 63, 63, 64, 64],
     [65, 79, 80, 80, 81, 90, 91, 91],
     [93, 93, 95, 95, 97, 111, 112, 112],
     [113, 122, 126, 126, 33, 33, 35, 35],
     [36, 36, 37, 37, 38, 38, 39, 39],
     [40, 40, 41, 41, 42, 42, 43, 43],
     [44, 44, 45, 45, 46, 46, 47, 47],
     [48, 57, 58, 58, 59, 59, 61, 61],
     [62, 62, 63, 63, 64, 64, 65, 78],
     [79, 79, 80, 90, 91, 91, 93, 93],
     [95, 95, 97, 110, 111, 111, 112, 122],
     [126, 126, 33, 33, 35, 35, 36, 36],
     [37, 37, 38, 38, 39, 39, 40, 40],
     [41, 41, 42, 42, 43, 43, 44, 44],
     [45, 45, 46, 46, 47, 47, 48, 57],
     [58, 58, 59, 59, 61, 61, 62, 62],
     [63, 63, 64, 64, 65, 81, 82, 82],
     [83, 90, 91, 91, 93, 93, 95, 95],
     [97, 113, 114, 114, 115, 122, 126, 126],
     [33, 33, 35, 35, 36, 36, 37, 37],
     [38, 38, 39, 39, 40, 40, 41, 41],
     [42, 42, 43, 43, 44, 44, 45, 45],
     [46, 46, 47, 47, 48, 57, 58, 58],
     [59, 59, 61, 61, 62, 62, 63, 63],
     [64, 64, 65, 83, 84, 84, 85, 90],
     [91, 91, 93, 93, 95, 95, 97, 115]]"

definition sup_cond_keys_22 :: "int list list" where
  "sup_cond_keys_22 =
    [[116, 116, 117, 122, 126, 126, 33, 33],
     [35, 35, 36, 36, 37, 37, 38, 38],
     [39, 39, 40, 40, 41, 41, 42, 42],
     [43, 43, 44, 44, 45, 45, 46, 46],
     [47, 47, 48, 57, 58, 58, 59, 59],
     [61, 61, 62, 62, 63, 63, 64, 64],
     [65, 90, 91, 91, 93, 93, 95, 95],
     [97, 122, 126, 126, 33, 33, 35, 35],
     [36, 36, 37, 37, 38, 38, 39, 39],
     [40, 40, 41, 41, 42, 42, 43, 43],
     [44, 44, 45, 45, 46, 46, 47, 47],
     [48, 57, 58, 58, 59, 59, 61, 61],
     [62, 62, 63, 63, 64, 64, 65, 82],
     [83, 83, 84, 84, 85, 85, 86, 86],
     [87, 87, 88, 90, 91, 91, 93, 93],
     [95, 95, 96, 96, 97, 114, 115, 115],
     [116, 116, 117, 117, 118, 118, 119, 119],
     [120, 122, 126, 126, 33, 33, 35, 35],
     [36, 36, 37, 37, 38, 38, 39, 39],
     [40, 40, 41, 41, 42, 42, 43, 43],
     [44, 44, 45, 45, 46, 46, 47, 47],
     [48, 57, 58, 58, 59, 59, 61, 61],
     [62, 62, 63, 63, 64, 64, 65, 90],
     [91, 91, 93, 93, 95, 95, 96, 96],
     [97, 122, 126, 126, 33, 33, 37, 37],
     [39, 39, 42, 42, 43, 43, 45, 45],
     [46, 46, 48, 57, 59, 59, 62, 62],
     [63, 63, 65, 65, 66, 66, 67, 67],
     [68, 68, 69, 69, 70, 70, 71, 90],
     [95, 95, 96, 96, 97, 97, 98, 98],
     [99, 99, 100, 100, 101, 101, 102, 102],
     [103, 122, 126, 126, 33, 33, 37, 37],
     [39, 39, 42, 42, 43, 43, 45, 45],
     [46, 46, 48, 57, 59, 59, 62, 62],
     [63, 63, 65, 65, 66, 66, 67, 67],
     [68, 68, 69, 69, 70, 70, 71, 90],
     [95, 95, 96, 96, 97, 97, 98, 98],
     [99, 99, 100, 100, 101, 101, 102, 102],
     [103, 122, 126, 126, 33, 33, 35, 35],
     [36, 36, 37, 37, 38, 38, 39, 39],
     [40, 40, 41, 41, 42, 42, 43, 43],
     [44, 44, 45, 45, 46, 46, 47, 47],
     [48, 57, 58, 58, 59, 59, 61, 61],
     [62, 62, 63, 63, 64, 64, 65, 66],
     [67, 67, 68, 90, 91, 91, 93, 93],
     [95, 95, 96, 96, 97, 98, 99, 99],
     [100, 122, 126, 126, 33, 33, 35, 35],
     [36, 36, 37, 37, 38, 38, 39, 39],
     [40, 40, 41, 41, 42, 42, 43, 43],
     [44, 44, 45, 45, 46, 46, 47, 47],
     [48, 57, 58, 58, 59, 59, 61, 61],
     [62, 62, 63, 63, 64, 64, 65, 83],
     [84, 84, 85, 90, 91, 91, 93, 93],
     [95, 95, 96, 96, 97, 115, 116, 116],
     [117, 122, 126, 126, 33, 33, 35, 35],
     [36, 36, 37, 37, 38, 38, 39, 39],
     [40, 40, 41, 41, 42, 42, 43, 43],
     [44, 44, 45, 45, 46, 46, 47, 47],
     [48, 57, 58, 58, 59, 59, 61, 61],
     [62, 62, 63, 63, 64, 64, 65, 79],
     [80, 80, 81, 90, 91, 91, 93, 93],
     [95, 95, 96, 96, 97, 111, 112, 112],
     [113, 122, 126, 126, 33, 33, 35, 35],
     [36, 36, 37, 37, 38, 38, 39, 39],
     [40, 40, 41, 41, 42, 42, 43, 43],
     [44, 44, 45, 45, 46, 46, 47, 47],
     [48, 57, 58, 58, 59, 59, 61, 61],
     [62, 62, 63, 63, 64, 64, 65, 90],
     [91, 91, 93, 93, 95, 95, 96, 96],
     [97, 122, 126, 126, 33, 33, 35, 35],
     [36, 36, 37, 37, 38, 38, 39, 39],
     [40, 40, 41, 41, 42, 42, 43, 43],
     [44, 44, 45, 45, 46, 46, 47, 47],
     [48, 57, 58, 58, 59, 59, 61, 61],
     [62, 62, 63, 63, 64, 64, 65, 66],
     [67, 67, 68, 75, 76, 76, 77, 90],
     [91, 91, 93, 93, 95, 95, 96, 96],
     [97, 98, 99, 99, 100, 107, 108, 108],
     [109, 122, 126, 126, 33, 33, 35, 35],
     [36, 36, 37, 37, 38, 38, 39, 39],
     [40, 40, 41, 41, 42, 42, 43, 43],
     [44, 44, 45, 45, 46, 46, 47, 47],
     [48, 57, 58, 58, 59, 59, 61, 61],
     [62, 62, 63, 63, 64, 64, 65, 79],
     [80, 80, 81, 90, 91, 91, 93, 93],
     [95, 95, 96, 96, 97, 111, 112, 112],
     [113, 122, 126, 126, 33, 33, 35, 35],
     [36, 36, 37, 37, 38, 38, 39, 39],
     [40, 40, 41, 41, 42, 42, 43, 43],
     [44, 44, 45, 45, 46, 46, 47, 47],
     [48, 57, 58, 58, 59, 59, 61, 61],
     [62, 62, 63, 63, 64, 64, 65, 90],
     [91, 91, 93, 93, 95, 95, 96, 96],
     [97, 122, 126, 126, 33, 33, 35, 35],
     [36, 36, 37, 37, 38, 38, 39, 39],
     [40, 40, 41, 41, 42, 42, 43, 43],
     [44, 44, 45, 45, 46, 46, 47, 47],
     [48, 57, 58, 58, 59, 59, 61, 61],
     [62, 62, 63, 63, 64, 64, 65, 82],
     [83, 83, 84, 90, 91, 91, 93, 93],
     [95, 95, 96, 96, 97, 114, 115, 115],
     [116, 122, 126, 126, 33, 33, 35, 35],
     [36, 36, 37, 37, 38, 38, 39, 39],
     [40, 40, 41, 41, 42, 42, 43, 43],
     [44, 44, 45, 45, 46, 46, 47, 47],
     [48, 57, 58, 58, 59, 59, 61, 61],
     [62, 62, 63, 63, 64, 64, 65, 90],
     [91, 91, 93, 93, 95, 95, 96, 96],
     [97, 122, 126, 126, 33, 33, 35, 35],
     [36, 36, 37, 37, 38, 38, 39, 39],
     [40, 40, 41, 41, 42, 42, 43, 43],
     [44, 44, 45, 45, 46, 46, 47, 47],
     [48, 57, 58, 58, 59, 59, 61, 61],
     [62, 62, 63, 63, 64, 64, 65, 67],
     [68, 68, 69, 90, 91, 91, 93, 93],
     [95, 95, 96, 96, 97, 99, 100, 100],
     [101, 122, 126, 126, 33, 33, 35, 35],
     [36, 36, 37, 37, 38, 38, 39, 39],
     [40, 40, 41, 41, 42, 42, 43, 43],
     [44, 44, 45, 45, 46, 46, 47, 47],
     [48, 57, 58, 58, 59, 59, 61, 61],
     [62, 62, 63, 63, 64, 64, 65, 79],
     [80, 80, 81, 90, 91, 91, 93, 93],
     [95, 95, 96, 96, 97, 111, 112, 112],
     [113, 122, 126, 126, 33, 33, 35, 35],
     [36, 36, 37, 37, 38, 38, 39, 39],
     [40, 40, 41, 41, 42, 42, 43, 43],
     [44, 44, 45, 45, 46, 46, 47, 47],
     [48, 57, 58, 58, 59, 59, 61, 61],
     [62, 62, 63, 63, 64, 64, 65, 90],
     [91, 91, 93, 93, 95, 95, 96, 96],
     [97, 122, 126, 126, 33, 33, 35, 35],
     [36, 36, 37, 37, 38, 38, 39, 39],
     [40, 40, 41, 41, 42, 42, 43, 43],
     [44, 44, 45, 45, 46, 46, 47, 47],
     [48, 57, 58, 58, 59, 59, 61, 61],
     [62, 62, 63, 63, 64, 64, 65, 82],
     [83, 83, 84, 90, 91, 91, 93, 93],
     [95, 95, 96, 96, 97, 114, 115, 115],
     [116, 122, 126, 126, 33, 33, 35, 35],
     [36, 36, 37, 37, 38, 38, 39, 39],
     [40, 40, 41, 41, 42, 42, 43, 43],
     [44, 44, 45, 45, 46, 46, 47, 47],
     [48, 57, 58, 58, 59, 59, 61, 61],
     [62, 62, 63, 63, 64, 64, 65, 82],
     [83, 83, 84, 90, 91, 91, 93, 93],
     [95, 95, 96, 96, 97, 114, 115, 115],
     [116, 122, 126, 126, 33, 33, 35, 35],
     [36, 36, 37, 37, 38, 38, 39, 39],
     [40, 40, 41, 41, 42, 42, 43, 43]]"

definition sup_cond_keys_23 :: "int list list" where
  "sup_cond_keys_23 =
    [[44, 44, 45, 45, 46, 46, 47, 47],
     [48, 57, 58, 58, 59, 59, 61, 61],
     [62, 62, 63, 63, 64, 64, 65, 90],
     [91, 91, 93, 93, 95, 95, 96, 96],
     [97, 122, 126, 126, 33, 33, 35, 35],
     [36, 36, 37, 37, 38, 38, 39, 39],
     [40, 40, 41, 41, 42, 42, 43, 43],
     [44, 44, 45, 45, 46, 46, 47, 47],
     [48, 48, 49, 49, 50, 50, 51, 57],
     [58, 58, 59, 59, 61, 61, 63, 63],
     [64, 64, 65, 90, 95, 95, 97, 122],
     [126, 126, 33, 33, 35, 35, 36, 36],
     [37, 37, 38, 38, 39, 39, 40, 40],
     [41, 41, 42, 42, 43, 43, 44, 44],
     [45, 45, 46, 46, 47, 47, 48, 57],
     [58, 58, 59, 59, 61, 61, 63, 63],
     [64, 64, 65, 90, 95, 95, 97, 122],
     [126, 126, 33, 33, 35, 35, 36, 36],
     [37, 37, 38, 38, 39, 39, 40, 40],
     [41, 41, 42, 42, 43, 43, 44, 44],
     [45, 45, 46, 46, 47, 47, 48, 48],
     [49, 49, 50, 50, 51, 57, 58, 58],
     [59, 59, 61, 61, 63, 63, 64, 64],
     [65, 90, 95, 95, 97, 122, 126, 126],
     [33, 33, 35, 35, 36, 36, 37, 37],
     [38, 38, 39, 39, 40, 40, 41, 41],
     [42, 42, 43, 43, 44, 44, 45, 45],
     [46, 46, 47, 47, 48, 57, 58, 58],
     [59, 59, 61, 61, 63, 63, 64, 64],
     [65, 90, 95, 95, 97, 122, 126, 126],
     [33, 33, 35, 35, 36, 36, 37, 37],
     [38, 38, 39, 39, 40, 40, 41, 41],
     [42, 42, 43, 43, 44, 44, 45, 45],
     [46, 46, 47, 47, 48, 48, 49, 49],
     [50, 50, 51, 57, 58, 58, 59, 59],
     [61, 61, 63, 63, 64, 64, 65, 90],
     [95, 95, 97, 122, 126, 126, 33, 33],
     [35, 35, 36, 36, 37, 37, 38, 38],
     [39, 39, 40, 40, 41, 41, 42, 42],
     [43, 43, 44, 44, 45, 45, 46, 46],
     [47, 47, 48, 57, 58, 58, 59, 59],
     [61, 61, 62, 62, 63, 63, 64, 64],
     [65, 90, 95, 95, 97, 122, 126, 126],
     [33, 33, 35, 35, 36, 36, 37, 37],
     [38, 38, 39, 39, 40, 40, 41, 41],
     [42, 42, 43, 43, 44, 44, 45, 45],
     [46, 46, 47, 47, 48, 57, 58, 58],
     [59, 59, 61, 61, 62, 62, 63, 63],
     [64, 64, 65, 90, 95, 95, 97, 122],
     [126, 126, 33, 33, 35, 35, 36, 36],
     [37, 37, 38, 38, 39, 39, 40, 40],
     [41, 41, 42, 42, 43, 43, 44, 44],
     [45, 45, 46, 46, 47, 47, 48, 57],
     [58, 58, 59, 59, 61, 61, 62, 62],
     [63, 63, 64, 64, 65, 90, 95, 95],
     [97, 122, 126, 126, 33, 33, 35, 35],
     [36, 36, 37, 37, 38, 38, 39, 39],
     [40, 40, 41, 41, 42, 42, 43, 43],
     [44, 44, 45, 45, 46, 46, 47, 47],
     [48, 52, 53, 53, 54, 57, 58, 58],
     [59, 59, 61, 61, 62, 62, 63, 63],
     [64, 64, 65, 90, 95, 95, 97, 122],
     [126, 126, 33, 33, 35, 35, 36, 36],
     [37, 37, 38, 38, 39, 39, 40, 40],
     [41, 41, 42, 42, 43, 43, 44, 44],
     [45, 45, 46, 46, 47, 47, 48, 53],
     [54, 57, 58, 58, 59, 59, 61, 61],
     [62, 62, 63, 63, 64, 64, 65, 90],
     [95, 95, 97, 122, 126, 126, 33, 33],
     [35, 35, 36, 36, 37, 37, 38, 38],
     [39, 39, 40, 40, 41, 41, 42, 42],
     [43, 43, 44, 44, 45, 45, 46, 46],
     [47, 47, 48, 57, 58, 58, 59, 59],
     [61, 61, 63, 63, 64, 64, 65, 90],
     [95, 95, 97, 122, 126, 126, 33, 33],
     [35, 35, 36, 36, 37, 37, 38, 38],
     [39, 39, 40, 40, 41, 41, 42, 42],
     [43, 43, 44, 44, 45, 45, 46, 46],
     [47, 47, 48, 57, 58, 58, 59, 59],
     [61, 61, 63, 63, 64, 64, 65, 90],
     [95, 95, 97, 122, 126, 126, 33, 33],
     [35, 35, 36, 36, 37, 37, 38, 38],
     [39, 39, 40, 40, 41, 41, 42, 42],
     [43, 43, 44, 44, 45, 45, 46, 46],
     [47, 47, 48, 52, 53, 53, 54, 57],
     [58, 58, 59, 59, 61, 61, 63, 63],
     [64, 64, 65, 90, 95, 95, 97, 122],
     [126, 126, 33, 33, 35, 35, 36, 36],
     [37, 37, 38, 38, 39, 39, 40, 40],
     [41, 41, 42, 42, 43, 43, 44, 44],
     [45, 45, 46, 46, 47, 47, 48, 53],
     [54, 57, 58, 58, 59, 59, 61, 61],
     [63, 63, 64, 64, 65, 90, 95, 95],
     [97, 122, 126, 126, 33, 33, 35, 35],
     [36, 36, 37, 37, 38, 38, 39, 39],
     [40, 40, 41, 41, 42, 42, 43, 43],
     [44, 44, 45, 45, 46, 46, 47, 47],
     [48, 57, 58, 58, 59, 59, 61, 61],
     [63, 63, 64, 64, 65, 90, 95, 95],
     [97, 122, 126, 126, 33, 33, 35, 35],
     [36, 36, 37, 37, 38, 38, 39, 39],
     [40, 40, 41, 41, 42, 42, 43, 43],
     [44, 44, 45, 45, 46, 46, 47, 47],
     [48, 57, 58, 58, 59, 59, 61, 61],
     [63, 63, 64, 64, 65, 90, 95, 95],
     [97, 122, 126, 126, 33, 33, 35, 35],
     [36, 36, 37, 37, 38, 38, 39, 39],
     [40, 40, 41, 41, 42, 42, 43, 43],
     [44, 44, 45, 45, 46, 46, 47, 47],
     [48, 52, 53, 53, 54, 57, 58, 58],
     [59, 59, 61, 61, 63, 63, 64, 64],
     [65, 90, 95, 95, 97, 122, 126, 126],
     [33, 33, 35, 35, 36, 36, 37, 37],
     [38, 38, 39, 39, 40, 40, 41, 41],
     [42, 42, 43, 43, 44, 44, 45, 45],
     [46, 46, 47, 47, 48, 53, 54, 57],
     [58, 58, 59, 59, 61, 61, 63, 63],
     [64, 64, 65, 90, 95, 95, 97, 122],
     [126, 126, 33, 33, 35, 35, 36, 36],
     [37, 37, 38, 38, 39, 39, 40, 40],
     [41, 41, 42, 42, 43, 43, 44, 44],
     [45, 45, 46, 46, 47, 47, 48, 57],
     [58, 58, 59, 59, 61, 61, 63, 63],
     [64, 64, 65, 90, 95, 95, 97, 122],
     [126, 126, 33, 33, 35, 35, 36, 36],
     [37, 37, 38, 38, 39, 39, 40, 40],
     [41, 41, 42, 42, 43, 43, 44, 44],
     [45, 45, 46, 46, 47, 47, 48, 57],
     [58, 58, 59, 59, 61, 61, 63, 63],
     [64, 64, 65, 90, 95, 95, 97, 122],
     [126, 126, 33, 33, 35, 35, 36, 36],
     [37, 37, 38, 38, 39, 39, 40, 40],
     [41, 41, 42, 42, 43, 43, 44, 44],
     [45, 45, 46, 46, 47, 47, 48, 52],
     [53, 53, 54, 57, 58, 58, 59, 59],
     [61, 61, 63, 63, 64, 64, 65, 90],
     [95, 95, 97, 122, 126, 126, 33, 33],
     [35, 35, 36, 36, 37, 37, 38, 38],
     [39, 39, 40, 40, 41, 41, 42, 42],
     [43, 43, 44, 44, 45, 45, 46, 46],
     [47, 47, 48, 53, 54, 57, 58, 58],
     [59, 59, 61, 61, 63, 63, 64, 64],
     [65, 90, 95, 95, 97, 122, 126, 126],
     [43, 43, 45, 45, 46, 46, 48, 57],
     [58, 58, 65, 90, 97, 122, 43, 43],
     [45, 45, 46, 46, 48, 57, 58, 58],
     [65, 68, 69, 69, 70, 90, 97, 100],
     [101, 101, 102, 122, 43, 43, 45, 45],
     [46, 46, 48, 57, 58, 58, 65, 75],
     [76, 76, 77, 90, 97, 107, 108, 108]]"

definition sup_cond_keys_24 :: "int list list" where
  "sup_cond_keys_24 =
    [[109, 122, 43, 43, 45, 45, 46, 46],
     [48, 57, 58, 58, 65, 90, 97, 122],
     [35, 35, 40, 40, 41, 41, 42, 42],
     [43, 43, 45, 45, 46, 46, 48, 57],
     [65, 65, 66, 66, 67, 67, 68, 68],
     [69, 69, 70, 70, 97, 97, 98, 98],
     [99, 99, 100, 100, 101, 101, 102, 102],
     [35, 35, 40, 40, 41, 41, 42, 42],
     [45, 45, 46, 46, 48, 57, 59, 59],
     [62, 62, 65, 65, 66, 66, 67, 67],
     [68, 68, 69, 69, 70, 70, 97, 97],
     [98, 98, 99, 99, 100, 100, 101, 101],
     [102, 102, 45, 45, 48, 57, 65, 79],
     [80, 80, 81, 90, 97, 111, 112, 112],
     [113, 122, 45, 45, 48, 57, 59, 59],
     [61, 61, 62, 62, 65, 90, 97, 122],
     [33, 33, 36, 36, 37, 37, 38, 38],
     [39, 39, 40, 40, 41, 41, 42, 42],
     [43, 43, 45, 45, 46, 46, 47, 47],
     [48, 57, 58, 58, 65, 90, 91, 91],
     [93, 93, 95, 95, 97, 122, 126, 126],
     [33, 33, 36, 36, 37, 37, 38, 38],
     [39, 39, 40, 40, 41, 41, 42, 42],
     [43, 43, 45, 45, 46, 46, 47, 47],
     [48, 57, 58, 58, 59, 59, 62, 62],
     [65, 90, 91, 91, 93, 93, 95, 95],
     [97, 122, 126, 126, 48, 57, 65, 65],
     [66, 66, 67, 67, 68, 68, 69, 69],
     [70, 70, 97, 97, 98, 98, 99, 99],
     [100, 100, 101, 101, 102, 102, 48, 57],
     [65, 65, 66, 66, 67, 67, 68, 68],
     [69, 69, 70, 70, 97, 97, 98, 98],
     [99, 99, 100, 100, 101, 101, 102, 102],
     [45, 45, 48, 57, 59, 59, 61, 61],
     [62, 62, 65, 71, 72, 72, 73, 90],
     [97, 103, 104, 104, 105, 122, 45, 45],
     [48, 57, 59, 59, 61, 61, 62, 62],
     [65, 78, 79, 79, 80, 90, 97, 110],
     [111, 111, 112, 122, 45, 45, 48, 57],
     [59, 59, 61, 61, 62, 62, 65, 77],
     [78, 78, 79, 90, 97, 109, 110, 110],
     [111, 122, 45, 45, 48, 57, 59, 59],
     [61, 61, 62, 62, 65, 68, 69, 69],
     [70, 90, 97, 100, 101, 101, 102, 122],
     [45, 45, 48, 57, 59, 59, 61, 61],
     [62, 62, 65, 90, 97, 122, 45, 45],
     [48, 57, 59, 59, 61, 61, 62, 62],
     [65, 66, 67, 67, 68, 90, 97, 98],
     [99, 99, 100, 122, 45, 45, 48, 57],
     [59, 59, 61, 61, 62, 62, 65, 78],
     [79, 79, 80, 90, 97, 110, 111, 111],
     [112, 122, 45, 45, 48, 57, 59, 59],
     [61, 61, 62, 62, 65, 77, 78, 78],
     [79, 90, 97, 109, 110, 110, 111, 122],
     [45, 45, 48, 57, 59, 59, 61, 61],
     [62, 62, 65, 83, 84, 84, 85, 90],
     [97, 115, 116, 116, 117, 122, 45, 45],
     [48, 57, 59, 59, 61, 61, 62, 62],
     [65, 68, 69, 69, 70, 90, 97, 100],
     [101, 101, 102, 122, 45, 45, 48, 57],
     [59, 59, 61, 61, 62, 62, 65, 87],
     [88, 88, 89, 90, 97, 119, 120, 120],
     [121, 122, 45, 45, 48, 57, 59, 59],
     [61, 61, 62, 62, 65, 83, 84, 84],
     [85, 90, 97, 115, 116, 116, 117, 122],
     [45, 45, 48, 57, 59, 59, 61, 61],
     [62, 62, 65, 90, 97, 122, 33, 33],
     [36, 36, 37, 37, 38, 38, 39, 39],
     [40, 40, 41, 41, 42, 42, 43, 43],
     [45, 45, 46, 46, 47, 47, 48, 57],
     [58, 58, 65, 90, 91, 91, 93, 93],
     [95, 95, 97, 122, 126, 126, 33, 33],
     [36, 36, 37, 37, 38, 38, 39, 39],
     [40, 40, 41, 41, 42, 42, 43, 43],
     [45, 45, 46, 46, 47, 47, 48, 57],
     [58, 58, 59, 59, 62, 62, 65, 90],
     [91, 91, 93, 93, 95, 95, 97, 122],
     [126, 126, 33, 33, 36, 36, 37, 37],
     [38, 38, 39, 39, 40, 40, 41, 41],
     [42, 42, 43, 43, 45, 45, 46, 46],
     [47, 47, 48, 57, 58, 58, 59, 59],
     [62, 62, 65, 90, 91, 91, 93, 93],
     [95, 95, 97, 122, 126, 126, 33, 33],
     [36, 36, 37, 37, 38, 38, 39, 39],
     [40, 40, 41, 41, 42, 42, 43, 43],
     [45, 45, 46, 46, 47, 47, 48, 57],
     [58, 58, 59, 59, 62, 62, 65, 90],
     [91, 91, 93, 93, 95, 95, 97, 122],
     [126, 126, 33, 33, 36, 36, 37, 37],
     [38, 38, 39, 39, 40, 40, 41, 41],
     [42, 42, 43, 43, 45, 45, 46, 46],
     [47, 47, 48, 57, 58, 58, 59, 59],
     [62, 62, 65, 90, 91, 91, 93, 93],
     [95, 95, 97, 122, 126, 126, 33, 33],
     [36, 36, 37, 37, 38, 38, 39, 39],
     [40, 40, 41, 41, 42, 42, 43, 43],
     [45, 45, 46, 46, 47, 47, 48, 57],
     [58, 58, 59, 59, 62, 62, 65, 90],
     [91, 91, 93, 93, 95, 95, 97, 122],
     [126, 126, 33, 33, 36, 36, 37, 37],
     [38, 38, 39, 39, 40, 40, 41, 41],
     [42, 42, 43, 43, 45, 45, 46, 46],
     [47, 47, 48, 57, 58, 58, 59, 59],
     [62, 62, 65, 90, 91, 91, 93, 93],
     [95, 95, 97, 122, 126, 126, 33, 33],
     [36, 36, 37, 37, 38, 38, 39, 39],
     [40, 40, 41, 41, 42, 42, 43, 43],
     [45, 45, 46, 46, 47, 47, 48, 57],
     [58, 58, 59, 59, 62, 62, 65, 90],
     [91, 91, 93, 93, 95, 95, 97, 122],
     [126, 126, 33, 33, 36, 36, 37, 37],
     [38, 38, 39, 39, 40, 40, 41, 41],
     [42, 42, 43, 43, 45, 45, 46, 46],
     [47, 47, 48, 57, 58, 58, 59, 59],
     [62, 62, 65, 90, 91, 91, 93, 93],
     [95, 95, 97, 122, 126, 126, 35, 35],
     [40, 40, 41, 41, 42, 42, 45, 45],
     [46, 46, 48, 57, 65, 65, 66, 66],
     [67, 67, 68, 68, 69, 69, 70, 70],
     [97, 97, 98, 98, 99, 99, 100, 100],
     [101, 101, 102, 102, 40, 40, 41, 41],
     [45, 45, 46, 46, 48, 57, 40, 40],
     [41, 41, 45, 45, 46, 46, 48, 57],
     [59, 59, 62, 62, 9, 9, 13, 13],
     [32, 32, 33, 33, 37, 37, 39, 39],
     [42, 42, 43, 43, 45, 45, 46, 46],
     [48, 57, 60, 60, 65, 90, 95, 95],
     [96, 96, 97, 122, 126, 126, 9, 9],
     [13, 13, 32, 32, 33, 33, 37, 37],
     [39, 39, 42, 42, 43, 43, 45, 45],
     [46, 46, 48, 57, 60, 60, 65, 90],
     [95, 95, 96, 96, 97, 122, 126, 126],
     [10, 10, 9, 9, 32, 32, 9, 9],
     [32, 32, 33, 33, 37, 37, 39, 39],
     [42, 42, 43, 43, 45, 45, 46, 46],
     [48, 57, 60, 60, 65, 90, 95, 95],
     [96, 96, 97, 122, 126, 126, -64, -33],
     [-32, -17, -16, -9, -8, -5, -4, -3],
     [9, 9, 13, 13, 32, 32, 33, 33],
     [34, 34, 35, 91, 92, 92, 93, 126],
     [-128, -65, -128, -65, -128, -65, -128, -65],
     [-128, -65, 10, 10, 9, 9, 32, 32],
     [9, 9, 13, 13, 32, 32, 60, 60],
     [0, 9, 11, 12, 14, 127, 43, 43],
     [45, 45, 46, 46, 48, 57, 58, 58],
     [65, 90, 97, 122, 33, 33, 35, 35],
     [36, 36, 37, 37, 38, 38, 39, 39],
     [40, 40, 41, 41, 42, 42, 43, 43],
     [44, 44, 45, 45, 46, 46, 47, 47],
     [48, 48, 49, 49, 50, 50, 51, 57]]"

definition sup_cond_keys_25 :: "int list list" where
  "sup_cond_keys_25 =
    [[58, 58, 59, 59, 61, 61, 63, 63],
     [64, 64, 65, 90, 91, 91, 95, 95],
     [97, 122, 126, 126, 33, 33, 35, 35],
     [36, 36, 37, 37, 38, 38, 39, 39],
     [40, 40, 41, 41, 42, 42, 43, 43],
     [44, 44, 45, 45, 46, 46, 47, 47],
     [48, 57, 58, 58, 59, 59, 61, 61],
     [63, 63, 64, 64, 65, 90, 95, 95],
     [97, 122, 126, 126, 33, 33, 35, 35],
     [36, 36, 37, 37, 38, 38, 39, 39],
     [40, 40, 41, 41, 42, 42, 43, 43],
     [44, 44, 45, 45, 46, 46, 47, 47],
     [48, 57, 58, 58, 59, 59, 61, 61],
     [63, 63, 64, 64, 65, 90, 95, 95],
     [97, 122, 126, 126, 48, 57, 65, 65],
     [66, 66, 67, 67, 68, 68, 69, 69],
     [70, 70, 97, 97, 98, 98, 99, 99],
     [100, 100, 101, 101, 102, 102, 48, 57],
     [65, 65, 66, 66, 67, 67, 68, 68],
     [69, 69, 70, 70, 97, 97, 98, 98],
     [99, 99, 100, 100, 101, 101, 102, 102],
     [33, 33, 36, 36, 37, 37, 38, 38],
     [39, 39, 40, 40, 41, 41, 42, 42],
     [43, 43, 44, 44, 45, 45, 46, 46],
     [48, 57, 61, 61, 64, 64, 65, 90],
     [95, 95, 97, 122, 126, 126, 48, 57],
     [65, 65, 66, 66, 67, 67, 68, 68],
     [69, 69, 70, 70, 97, 97, 98, 98],
     [99, 99, 100, 100, 101, 101, 102, 102],
     [48, 57, 65, 65, 66, 66, 67, 67],
     [68, 68, 69, 69, 70, 70, 97, 97],
     [98, 98, 99, 99, 100, 100, 101, 101],
     [102, 102, 48, 48, 49, 49, 50, 50],
     [51, 57, 65, 90, 91, 91, 97, 122],
     [45, 45, 46, 46, 48, 57, 65, 90],
     [95, 95, 97, 122, 45, 45, 48, 57],
     [65, 90, 95, 95, 97, 122, 45, 45],
     [46, 46, 48, 57, 65, 90, 95, 95],
     [97, 122, 48, 57, 65, 90, 97, 122],
     [45, 45, 46, 46, 48, 57, 58, 58],
     [63, 63, 65, 90, 95, 95, 97, 122],
     [45, 45, 48, 57, 65, 90, 95, 95],
     [97, 122, 48, 57, 58, 58, 63, 63],
     [65, 90, 97, 122, 48, 48, 49, 53],
     [54, 54, 55, 57, 48, 48, 49, 57],
     [48, 48, 49, 57, 49, 57, 63, 63],
     [33, 33, 36, 36, 37, 37, 38, 38],
     [39, 39, 40, 40, 41, 41, 42, 42],
     [43, 43, 44, 44, 45, 45, 46, 46],
     [47, 47, 48, 57, 58, 58, 59, 59],
     [61, 61, 63, 63, 64, 64, 65, 90],
     [95, 95, 97, 122, 126, 126, 48, 57],
     [65, 65, 66, 66, 67, 67, 68, 68],
     [69, 69, 70, 70, 97, 97, 98, 98],
     [99, 99, 100, 100, 101, 101, 102, 102],
     [48, 57, 65, 65, 66, 66, 67, 67],
     [68, 68, 69, 69, 70, 70, 97, 97],
     [98, 98, 99, 99, 100, 100, 101, 101],
     [102, 102, 48, 57, 63, 63, 48, 57],
     [63, 63, 48, 57, 63, 63, 48, 57],
     [63, 63, 48, 52, 53, 53, 54, 57],
     [63, 63, 48, 52, 53, 53, 54, 57],
     [63, 63, 48, 50, 51, 51, 52, 57],
     [63, 63, 48, 53, 63, 63, 48, 48],
     [49, 49, 50, 50, 51, 57, 65, 90],
     [97, 122, 45, 45, 46, 46, 48, 57],
     [65, 90, 95, 95, 97, 122, 48, 48],
     [49, 49, 50, 50, 51, 57, 65, 90],
     [97, 122, 45, 45, 46, 46, 48, 57],
     [65, 90, 95, 95, 97, 122, 48, 48],
     [49, 49, 50, 50, 51, 57, 65, 90],
     [97, 122, 45, 45, 46, 46, 48, 57],
     [58, 58, 63, 63, 65, 90, 95, 95],
     [97, 122, 45, 45, 46, 46, 48, 57],
     [58, 58, 63, 63, 65, 90, 95, 95],
     [97, 122, 45, 45, 46, 46, 48, 57],
     [58, 58, 63, 63, 65, 90, 95, 95],
     [97, 122, 45, 45, 46, 46, 48, 52],
     [53, 53, 54, 57, 58, 58, 63, 63],
     [65, 90, 95, 95, 97, 122, 45, 45],
     [46, 46, 48, 53, 54, 57, 58, 58],
     [63, 63, 65, 90, 95, 95, 97, 122],
     [45, 45, 46, 46, 48, 57, 65, 90],
     [95, 95, 97, 122, 45, 45, 46, 46],
     [48, 57, 65, 90, 95, 95, 97, 122],
     [45, 45, 46, 46, 48, 52, 53, 53],
     [54, 57, 65, 90, 95, 95, 97, 122],
     [45, 45, 46, 46, 48, 53, 54, 57],
     [65, 90, 95, 95, 97, 122, 45, 45],
     [46, 46, 48, 57, 65, 90, 95, 95],
     [97, 122, 45, 45, 46, 46, 48, 57],
     [65, 90, 95, 95, 97, 122, 45, 45],
     [46, 46, 48, 52, 53, 53, 54, 57],
     [65, 90, 95, 95, 97, 122, 45, 45],
     [46, 46, 48, 53, 54, 57, 65, 90],
     [95, 95, 97, 122, 45, 45, 46, 46],
     [48, 57, 65, 90, 95, 95, 97, 122],
     [45, 45, 46, 46, 48, 57, 65, 90],
     [95, 95, 97, 122, 45, 45, 46, 46],
     [48, 52, 53, 53, 54, 57, 65, 90],
     [95, 95, 97, 122, 45, 45, 46, 46],
     [48, 53, 54, 57, 65, 90, 95, 95],
     [97, 122, 48, 57, 58, 58, 65, 65],
     [66, 66, 67, 67, 68, 68, 69, 69],
     [70, 70, 97, 97, 98, 98, 99, 99],
     [100, 100, 101, 101, 102, 102, 48, 57],
     [58, 58, 65, 65, 66, 66, 67, 67],
     [68, 68, 69, 69, 70, 70, 97, 97],
     [98, 98, 99, 99, 100, 100, 101, 101],
     [102, 102, 48, 57, 58, 58, 65, 65],
     [66, 66, 67, 67, 68, 68, 69, 69],
     [70, 70, 97, 97, 98, 98, 99, 99],
     [100, 100, 101, 101, 102, 102, 48, 57],
     [58, 58, 65, 65, 66, 66, 67, 67],
     [68, 68, 69, 69, 70, 70, 97, 97],
     [98, 98, 99, 99, 100, 100, 101, 101],
     [102, 102, 58, 58, 48, 57, 58, 58],
     [65, 65, 66, 66, 67, 67, 68, 68],
     [69, 69, 70, 70, 97, 97, 98, 98],
     [99, 99, 100, 100, 101, 101, 102, 102],
     [48, 57, 58, 58, 65, 65, 66, 66],
     [67, 67, 68, 68, 69, 69, 70, 70],
     [97, 97, 98, 98, 99, 99, 100, 100],
     [101, 101, 102, 102, 48, 57, 58, 58],
     [65, 65, 66, 66, 67, 67, 68, 68],
     [69, 69, 70, 70, 97, 97, 98, 98],
     [99, 99, 100, 100, 101, 101, 102, 102],
     [48, 57, 58, 58, 65, 65, 66, 66],
     [67, 67, 68, 68, 69, 69, 70, 70],
     [97, 97, 98, 98, 99, 99, 100, 100],
     [101, 101, 102, 102, 58, 58, 48, 57],
     [58, 58, 65, 65, 66, 66, 67, 67],
     [68, 68, 69, 69, 70, 70, 97, 97],
     [98, 98, 99, 99, 100, 100, 101, 101],
     [102, 102, 48, 57, 58, 58, 65, 65],
     [66, 66, 67, 67, 68, 68, 69, 69],
     [70, 70, 97, 97, 98, 98, 99, 99],
     [100, 100, 101, 101, 102, 102, 48, 57],
     [58, 58, 65, 65, 66, 66, 67, 67],
     [68, 68, 69, 69, 70, 70, 97, 97],
     [98, 98, 99, 99, 100, 100, 101, 101],
     [102, 102, 48, 57, 58, 58, 65, 65],
     [66, 66, 67, 67, 68, 68, 69, 69],
     [70, 70, 97, 97, 98, 98, 99, 99],
     [100, 100, 101, 101, 102, 102, 58, 58],
     [48, 57, 58, 58, 65, 65, 66, 66],
     [67, 67, 68, 68, 69, 69, 70, 70],
     [97, 97, 98, 98, 99, 99, 100, 100],
     [101, 101, 102, 102, 48, 57, 58, 58],
     [65, 65, 66, 66, 67, 67, 68, 68]]"

definition sup_cond_keys_26 :: "int list list" where
  "sup_cond_keys_26 =
    [[69, 69, 70, 70, 97, 97, 98, 98],
     [99, 99, 100, 100, 101, 101, 102, 102],
     [48, 57, 58, 58, 65, 65, 66, 66],
     [67, 67, 68, 68, 69, 69, 70, 70],
     [97, 97, 98, 98, 99, 99, 100, 100],
     [101, 101, 102, 102, 48, 57, 58, 58],
     [65, 65, 66, 66, 67, 67, 68, 68],
     [69, 69, 70, 70, 97, 97, 98, 98],
     [99, 99, 100, 100, 101, 101, 102, 102],
     [58, 58, 48, 57, 58, 58, 65, 65],
     [66, 66, 67, 67, 68, 68, 69, 69],
     [70, 70, 97, 97, 98, 98, 99, 99],
     [100, 100, 101, 101, 102, 102, 48, 57],
     [58, 58, 65, 65, 66, 66, 67, 67],
     [68, 68, 69, 69, 70, 70, 97, 97],
     [98, 98, 99, 99, 100, 100, 101, 101],
     [102, 102, 48, 57, 58, 58, 65, 65],
     [66, 66, 67, 67, 68, 68, 69, 69],
     [70, 70, 97, 97, 98, 98, 99, 99],
     [100, 100, 101, 101, 102, 102, 48, 57],
     [58, 58, 65, 65, 66, 66, 67, 67],
     [68, 68, 69, 69, 70, 70, 97, 97],
     [98, 98, 99, 99, 100, 100, 101, 101],
     [102, 102, 58, 58, 48, 57, 58, 58],
     [65, 65, 66, 66, 67, 67, 68, 68],
     [69, 69, 70, 70, 97, 97, 98, 98],
     [99, 99, 100, 100, 101, 101, 102, 102],
     [48, 57, 58, 58, 65, 65, 66, 66],
     [67, 67, 68, 68, 69, 69, 70, 70],
     [97, 97, 98, 98, 99, 99, 100, 100],
     [101, 101, 102, 102, 48, 57, 58, 58],
     [65, 65, 66, 66, 67, 67, 68, 68],
     [69, 69, 70, 70, 97, 97, 98, 98],
     [99, 99, 100, 100, 101, 101, 102, 102],
     [48, 57, 58, 58, 65, 65, 66, 66],
     [67, 67, 68, 68, 69, 69, 70, 70],
     [97, 97, 98, 98, 99, 99, 100, 100],
     [101, 101, 102, 102, 58, 58, 48, 48],
     [49, 49, 50, 50, 51, 57, 58, 58],
     [65, 65, 66, 66, 67, 67, 68, 68],
     [69, 69, 70, 70, 97, 97, 98, 98],
     [99, 99, 100, 100, 101, 101, 102, 102],
     [46, 46, 48, 57, 58, 58, 65, 65],
     [66, 66, 67, 67, 68, 68, 69, 69],
     [70, 70, 97, 97, 98, 98, 99, 99],
     [100, 100, 101, 101, 102, 102, 48, 48],
     [49, 49, 50, 50, 51, 57, 46, 46],
     [48, 48, 49, 49, 50, 50, 51, 57],
     [46, 46, 48, 48, 49, 49, 50, 50],
     [51, 57, 93, 93, 58, 58, 63, 63],
     [48, 57, 93, 93, 48, 57, 93, 93],
     [48, 52, 53, 53, 54, 57, 93, 93],
     [48, 53, 93, 93, 46, 46, 48, 57],
     [46, 46, 48, 57, 46, 46, 48, 52],
     [53, 53, 54, 57, 46, 46, 48, 53],
     [46, 46, 48, 57, 46, 46, 48, 57],
     [46, 46, 48, 52, 53, 53, 54, 57],
     [46, 46, 48, 53, 48, 57, 58, 58],
     [65, 65, 66, 66, 67, 67, 68, 68],
     [69, 69, 70, 70, 97, 97, 98, 98],
     [99, 99, 100, 100, 101, 101, 102, 102],
     [48, 57, 58, 58, 65, 65, 66, 66],
     [67, 67, 68, 68, 69, 69, 70, 70],
     [97, 97, 98, 98, 99, 99, 100, 100],
     [101, 101, 102, 102, 58, 58, 48, 57],
     [58, 58, 65, 65, 66, 66, 67, 67],
     [68, 68, 69, 69, 70, 70, 97, 97],
     [98, 98, 99, 99, 100, 100, 101, 101],
     [102, 102, 48, 57, 65, 65, 66, 66],
     [67, 67, 68, 68, 69, 69, 70, 70],
     [93, 93, 97, 97, 98, 98, 99, 99],
     [100, 100, 101, 101, 102, 102, 48, 57],
     [65, 65, 66, 66, 67, 67, 68, 68],
     [69, 69, 70, 70, 93, 93, 97, 97],
     [98, 98, 99, 99, 100, 100, 101, 101],
     [102, 102, 48, 57, 65, 65, 66, 66],
     [67, 67, 68, 68, 69, 69, 70, 70],
     [93, 93, 97, 97, 98, 98, 99, 99],
     [100, 100, 101, 101, 102, 102, 46, 46],
     [48, 57, 58, 58, 65, 65, 66, 66],
     [67, 67, 68, 68, 69, 69, 70, 70],
     [97, 97, 98, 98, 99, 99, 100, 100],
     [101, 101, 102, 102, 46, 46, 48, 57],
     [58, 58, 65, 65, 66, 66, 67, 67],
     [68, 68, 69, 69, 70, 70, 97, 97],
     [98, 98, 99, 99, 100, 100, 101, 101],
     [102, 102, 46, 46, 48, 57, 58, 58],
     [65, 65, 66, 66, 67, 67, 68, 68],
     [69, 69, 70, 70, 97, 97, 98, 98],
     [99, 99, 100, 100, 101, 101, 102, 102],
     [46, 46, 48, 52, 53, 53, 54, 57],
     [58, 58, 65, 65, 66, 66, 67, 67],
     [68, 68, 69, 69, 70, 70, 97, 97],
     [98, 98, 99, 99, 100, 100, 101, 101],
     [102, 102, 46, 46, 48, 53, 54, 57],
     [58, 58, 65, 65, 66, 66, 67, 67],
     [68, 68, 69, 69, 70, 70, 97, 97],
     [98, 98, 99, 99, 100, 100, 101, 101],
     [102, 102, 46, 46, 48, 57, 58, 58],
     [65, 65, 66, 66, 67, 67, 68, 68],
     [69, 69, 70, 70, 97, 97, 98, 98],
     [99, 99, 100, 100, 101, 101, 102, 102],
     [46, 46, 48, 57, 58, 58, 65, 65],
     [66, 66, 67, 67, 68, 68, 69, 69],
     [70, 70, 97, 97, 98, 98, 99, 99],
     [100, 100, 101, 101, 102, 102, 48, 57],
     [65, 65, 66, 66, 67, 67, 68, 68],
     [69, 69, 70, 70, 93, 93, 97, 97],
     [98, 98, 99, 99, 100, 100, 101, 101],
     [102, 102, 48, 57, 58, 58, 65, 65],
     [66, 66, 67, 67, 68, 68, 69, 69],
     [70, 70, 97, 97, 98, 98, 99, 99],
     [100, 100, 101, 101, 102, 102, 48, 48],
     [49, 49, 50, 50, 51, 57, 65, 65],
     [66, 66, 67, 67, 68, 68, 69, 69],
     [70, 70, 93, 93, 97, 97, 98, 98],
     [99, 99, 100, 100, 101, 101, 102, 102],
     [46, 46, 48, 57, 58, 58, 65, 65],
     [66, 66, 67, 67, 68, 68, 69, 69],
     [70, 70, 93, 93, 97, 97, 98, 98],
     [99, 99, 100, 100, 101, 101, 102, 102],
     [48, 57, 58, 58, 65, 65, 66, 66],
     [67, 67, 68, 68, 69, 69, 70, 70],
     [93, 93, 97, 97, 98, 98, 99, 99],
     [100, 100, 101, 101, 102, 102, 48, 57],
     [58, 58, 65, 65, 66, 66, 67, 67],
     [68, 68, 69, 69, 70, 70, 93, 93],
     [97, 97, 98, 98, 99, 99, 100, 100],
     [101, 101, 102, 102, 58, 58, 93, 93],
     [48, 57, 65, 65, 66, 66, 67, 67],
     [68, 68, 69, 69, 70, 70, 97, 97],
     [98, 98, 99, 99, 100, 100, 101, 101],
     [102, 102, 46, 46, 48, 57, 58, 58],
     [65, 65, 66, 66, 67, 67, 68, 68],
     [69, 69, 70, 70, 93, 93, 97, 97],
     [98, 98, 99, 99, 100, 100, 101, 101],
     [102, 102, 46, 46, 48, 57, 58, 58],
     [65, 65, 66, 66, 67, 67, 68, 68],
     [69, 69, 70, 70, 93, 93, 97, 97],
     [98, 98, 99, 99, 100, 100, 101, 101],
     [102, 102, 46, 46, 48, 57, 58, 58],
     [65, 65, 66, 66, 67, 67, 68, 68],
     [69, 69, 70, 70, 93, 93, 97, 97],
     [98, 98, 99, 99, 100, 100, 101, 101],
     [102, 102, 46, 46, 48, 52, 53, 53],
     [54, 57, 58, 58, 65, 65, 66, 66],
     [67, 67, 68, 68, 69, 69, 70, 70],
     [93, 93, 97, 97, 98, 98, 99, 99],
     [100, 100, 101, 101, 102, 102, 46, 46],
     [48, 53, 54, 57, 58, 58, 65, 65]]"

definition sup_cond_keys_27 :: "int list list" where
  "sup_cond_keys_27 =
    [[66, 66, 67, 67, 68, 68, 69, 69],
     [70, 70, 93, 93, 97, 97, 98, 98],
     [99, 99, 100, 100, 101, 101, 102, 102],
     [46, 46, 48, 57, 58, 58, 65, 65],
     [66, 66, 67, 67, 68, 68, 69, 69],
     [70, 70, 93, 93, 97, 97, 98, 98],
     [99, 99, 100, 100, 101, 101, 102, 102],
     [46, 46, 48, 57, 58, 58, 65, 65],
     [66, 66, 67, 67, 68, 68, 69, 69],
     [70, 70, 93, 93, 97, 97, 98, 98],
     [99, 99, 100, 100, 101, 101, 102, 102],
     [48, 57, 58, 58, 65, 65, 66, 66],
     [67, 67, 68, 68, 69, 69, 70, 70],
     [93, 93, 97, 97, 98, 98, 99, 99],
     [100, 100, 101, 101, 102, 102, 48, 48],
     [49, 49, 50, 50, 51, 57, 65, 65],
     [66, 66, 67, 67, 68, 68, 69, 69],
     [70, 70, 93, 93, 97, 97, 98, 98],
     [99, 99, 100, 100, 101, 101, 102, 102],
     [46, 46, 48, 57, 58, 58, 65, 65],
     [66, 66, 67, 67, 68, 68, 69, 69],
     [70, 70, 93, 93, 97, 97, 98, 98],
     [99, 99, 100, 100, 101, 101, 102, 102],
     [48, 57, 58, 58, 65, 65, 66, 66],
     [67, 67, 68, 68, 69, 69, 70, 70],
     [93, 93, 97, 97, 98, 98, 99, 99],
     [100, 100, 101, 101, 102, 102, 48, 57],
     [58, 58, 65, 65, 66, 66, 67, 67],
     [68, 68, 69, 69, 70, 70, 93, 93],
     [97, 97, 98, 98, 99, 99, 100, 100],
     [101, 101, 102, 102, 58, 58, 93, 93],
     [48, 48, 49, 49, 50, 50, 51, 57],
     [65, 65, 66, 66, 67, 67, 68, 68],
     [69, 69, 70, 70, 97, 97, 98, 98],
     [99, 99, 100, 100, 101, 101, 102, 102],
     [46, 46, 48, 57, 58, 58, 65, 65],
     [66, 66, 67, 67, 68, 68, 69, 69],
     [70, 70, 93, 93, 97, 97, 98, 98],
     [99, 99, 100, 100, 101, 101, 102, 102],
     [46, 46, 48, 57, 58, 58, 65, 65],
     [66, 66, 67, 67, 68, 68, 69, 69],
     [70, 70, 93, 93, 97, 97, 98, 98],
     [99, 99, 100, 100, 101, 101, 102, 102],
     [46, 46, 48, 57, 58, 58, 65, 65],
     [66, 66, 67, 67, 68, 68, 69, 69],
     [70, 70, 93, 93, 97, 97, 98, 98],
     [99, 99, 100, 100, 101, 101, 102, 102],
     [46, 46, 48, 52, 53, 53, 54, 57],
     [58, 58, 65, 65, 66, 66, 67, 67],
     [68, 68, 69, 69, 70, 70, 93, 93],
     [97, 97, 98, 98, 99, 99, 100, 100],
     [101, 101, 102, 102, 46, 46, 48, 53],
     [54, 57, 58, 58, 65, 65, 66, 66],
     [67, 67, 68, 68, 69, 69, 70, 70],
     [93, 93, 97, 97, 98, 98, 99, 99],
     [100, 100, 101, 101, 102, 102, 46, 46],
     [48, 57, 58, 58, 65, 65, 66, 66],
     [67, 67, 68, 68, 69, 69, 70, 70],
     [93, 93, 97, 97, 98, 98, 99, 99],
     [100, 100, 101, 101, 102, 102, 46, 46],
     [48, 57, 58, 58, 65, 65, 66, 66],
     [67, 67, 68, 68, 69, 69, 70, 70],
     [93, 93, 97, 97, 98, 98, 99, 99],
     [100, 100, 101, 101, 102, 102, 48, 57],
     [58, 58, 65, 65, 66, 66, 67, 67],
     [68, 68, 69, 69, 70, 70, 93, 93],
     [97, 97, 98, 98, 99, 99, 100, 100],
     [101, 101, 102, 102, 48, 48, 49, 49],
     [50, 50, 51, 57, 65, 65, 66, 66],
     [67, 67, 68, 68, 69, 69, 70, 70],
     [93, 93, 97, 97, 98, 98, 99, 99],
     [100, 100, 101, 101, 102, 102, 46, 46],
     [48, 57, 58, 58, 65, 65, 66, 66],
     [67, 67, 68, 68, 69, 69, 70, 70],
     [93, 93, 97, 97, 98, 98, 99, 99],
     [100, 100, 101, 101, 102, 102, 48, 57],
     [58, 58, 65, 65, 66, 66, 67, 67],
     [68, 68, 69, 69, 70, 70, 93, 93],
     [97, 97, 98, 98, 99, 99, 100, 100],
     [101, 101, 102, 102, 48, 57, 58, 58],
     [65, 65, 66, 66, 67, 67, 68, 68],
     [69, 69, 70, 70, 93, 93, 97, 97],
     [98, 98, 99, 99, 100, 100, 101, 101],
     [102, 102, 58, 58, 93, 93, 48, 48],
     [49, 49, 50, 50, 51, 57, 65, 65],
     [66, 66, 67, 67, 68, 68, 69, 69],
     [70, 70, 97, 97, 98, 98, 99, 99],
     [100, 100, 101, 101, 102, 102, 46, 46],
     [48, 57, 58, 58, 65, 65, 66, 66],
     [67, 67, 68, 68, 69, 69, 70, 70],
     [93, 93, 97, 97, 98, 98, 99, 99],
     [100, 100, 101, 101, 102, 102, 46, 46],
     [48, 57, 58, 58, 65, 65, 66, 66],
     [67, 67, 68, 68, 69, 69, 70, 70],
     [93, 93, 97, 97, 98, 98, 99, 99],
     [100, 100, 101, 101, 102, 102, 46, 46],
     [48, 57, 58, 58, 65, 65, 66, 66],
     [67, 67, 68, 68, 69, 69, 70, 70],
     [93, 93, 97, 97, 98, 98, 99, 99],
     [100, 100, 101, 101, 102, 102, 46, 46],
     [48, 52, 53, 53, 54, 57, 58, 58],
     [65, 65, 66, 66, 67, 67, 68, 68],
     [69, 69, 70, 70, 93, 93, 97, 97],
     [98, 98, 99, 99, 100, 100, 101, 101],
     [102, 102, 46, 46, 48, 53, 54, 57],
     [58, 58, 65, 65, 66, 66, 67, 67],
     [68, 68, 69, 69, 70, 70, 93, 93],
     [97, 97, 98, 98, 99, 99, 100, 100],
     [101, 101, 102, 102, 46, 46, 48, 57],
     [58, 58, 65, 65, 66, 66, 67, 67],
     [68, 68, 69, 69, 70, 70, 93, 93],
     [97, 97, 98, 98, 99, 99, 100, 100],
     [101, 101, 102, 102, 46, 46, 48, 57],
     [58, 58, 65, 65, 66, 66, 67, 67],
     [68, 68, 69, 69, 70, 70, 93, 93],
     [97, 97, 98, 98, 99, 99, 100, 100],
     [101, 101, 102, 102, 48, 57, 58, 58],
     [65, 65, 66, 66, 67, 67, 68, 68],
     [69, 69, 70, 70, 93, 93, 97, 97],
     [98, 98, 99, 99, 100, 100, 101, 101],
     [102, 102, 48, 48, 49, 49, 50, 50],
     [51, 57, 65, 65, 66, 66, 67, 67],
     [68, 68, 69, 69, 70, 70, 93, 93],
     [97, 97, 98, 98, 99, 99, 100, 100],
     [101, 101, 102, 102, 46, 46, 48, 57],
     [58, 58, 65, 65, 66, 66, 67, 67],
     [68, 68, 69, 69, 70, 70, 93, 93],
     [97, 97, 98, 98, 99, 99, 100, 100],
     [101, 101, 102, 102, 48, 57, 58, 58],
     [65, 65, 66, 66, 67, 67, 68, 68],
     [69, 69, 70, 70, 93, 93, 97, 97],
     [98, 98, 99, 99, 100, 100, 101, 101],
     [102, 102, 48, 57, 58, 58, 65, 65],
     [66, 66, 67, 67, 68, 68, 69, 69],
     [70, 70, 93, 93, 97, 97, 98, 98],
     [99, 99, 100, 100, 101, 101, 102, 102],
     [58, 58, 93, 93, 48, 48, 49, 49],
     [50, 50, 51, 57, 65, 65, 66, 66],
     [67, 67, 68, 68, 69, 69, 70, 70],
     [97, 97, 98, 98, 99, 99, 100, 100],
     [101, 101, 102, 102, 46, 46, 48, 57],
     [58, 58, 65, 65, 66, 66, 67, 67],
     [68, 68, 69, 69, 70, 70, 93, 93],
     [97, 97, 98, 98, 99, 99, 100, 100],
     [101, 101, 102, 102, 46, 46, 48, 57],
     [58, 58, 65, 65, 66, 66, 67, 67],
     [68, 68, 69, 69, 70, 70, 93, 93],
     [97, 97, 98, 98, 99, 99, 100, 100],
     [101, 101, 102, 102, 46, 46, 48, 57],
     [58, 58, 65, 65, 66, 66, 67, 67]]"

definition sup_cond_keys_28 :: "int list list" where
  "sup_cond_keys_28 =
    [[68, 68, 69, 69, 70, 70, 93, 93],
     [97, 97, 98, 98, 99, 99, 100, 100],
     [101, 101, 102, 102, 46, 46, 48, 52],
     [53, 53, 54, 57, 58, 58, 65, 65],
     [66, 66, 67, 67, 68, 68, 69, 69],
     [70, 70, 93, 93, 97, 97, 98, 98],
     [99, 99, 100, 100, 101, 101, 102, 102],
     [46, 46, 48, 53, 54, 57, 58, 58],
     [65, 65, 66, 66, 67, 67, 68, 68],
     [69, 69, 70, 70, 93, 93, 97, 97],
     [98, 98, 99, 99, 100, 100, 101, 101],
     [102, 102, 46, 46, 48, 57, 58, 58],
     [65, 65, 66, 66, 67, 67, 68, 68],
     [69, 69, 70, 70, 93, 93, 97, 97],
     [98, 98, 99, 99, 100, 100, 101, 101],
     [102, 102, 46, 46, 48, 57, 58, 58],
     [65, 65, 66, 66, 67, 67, 68, 68],
     [69, 69, 70, 70, 93, 93, 97, 97],
     [98, 98, 99, 99, 100, 100, 101, 101],
     [102, 102, 48, 57, 58, 58, 65, 65],
     [66, 66, 67, 67, 68, 68, 69, 69],
     [70, 70, 93, 93, 97, 97, 98, 98],
     [99, 99, 100, 100, 101, 101, 102, 102],
     [48, 48, 49, 49, 50, 50, 51, 57],
     [65, 65, 66, 66, 67, 67, 68, 68],
     [69, 69, 70, 70, 93, 93, 97, 97],
     [98, 98, 99, 99, 100, 100, 101, 101],
     [102, 102, 46, 46, 48, 57, 58, 58],
     [65, 65, 66, 66, 67, 67, 68, 68],
     [69, 69, 70, 70, 93, 93, 97, 97],
     [98, 98, 99, 99, 100, 100, 101, 101],
     [102, 102, 48, 57, 58, 58, 65, 65],
     [66, 66, 67, 67, 68, 68, 69, 69],
     [70, 70, 93, 93, 97, 97, 98, 98],
     [99, 99, 100, 100, 101, 101, 102, 102],
     [48, 57, 58, 58, 65, 65, 66, 66],
     [67, 67, 68, 68, 69, 69, 70, 70],
     [93, 93, 97, 97, 98, 98, 99, 99],
     [100, 100, 101, 101, 102, 102, 58, 58],
     [93, 93, 48, 48, 49, 49, 50, 50],
     [51, 57, 65, 65, 66, 66, 67, 67],
     [68, 68, 69, 69, 70, 70, 97, 97],
     [98, 98, 99, 99, 100, 100, 101, 101],
     [102, 102, 46, 46, 48, 57, 58, 58],
     [65, 65, 66, 66, 67, 67, 68, 68],
     [69, 69, 70, 70, 93, 93, 97, 97],
     [98, 98, 99, 99, 100, 100, 101, 101],
     [102, 102, 46, 46, 48, 57, 58, 58],
     [65, 65, 66, 66, 67, 67, 68, 68],
     [69, 69, 70, 70, 93, 93, 97, 97],
     [98, 98, 99, 99, 100, 100, 101, 101],
     [102, 102, 46, 46, 48, 57, 58, 58],
     [65, 65, 66, 66, 67, 67, 68, 68],
     [69, 69, 70, 70, 93, 93, 97, 97],
     [98, 98, 99, 99, 100, 100, 101, 101],
     [102, 102, 46, 46, 48, 52, 53, 53],
     [54, 57, 58, 58, 65, 65, 66, 66],
     [67, 67, 68, 68, 69, 69, 70, 70],
     [93, 93, 97, 97, 98, 98, 99, 99],
     [100, 100, 101, 101, 102, 102, 46, 46],
     [48, 53, 54, 57, 58, 58, 65, 65],
     [66, 66, 67, 67, 68, 68, 69, 69],
     [70, 70, 93, 93, 97, 97, 98, 98],
     [99, 99, 100, 100, 101, 101, 102, 102],
     [46, 46, 48, 57, 58, 58, 65, 65],
     [66, 66, 67, 67, 68, 68, 69, 69],
     [70, 70, 93, 93, 97, 97, 98, 98],
     [99, 99, 100, 100, 101, 101, 102, 102],
     [46, 46, 48, 57, 58, 58, 65, 65],
     [66, 66, 67, 67, 68, 68, 69, 69],
     [70, 70, 93, 93, 97, 97, 98, 98],
     [99, 99, 100, 100, 101, 101, 102, 102],
     [48, 57, 58, 58, 65, 65, 66, 66],
     [67, 67, 68, 68, 69, 69, 70, 70],
     [93, 93, 97, 97, 98, 98, 99, 99],
     [100, 100, 101, 101, 102, 102, 58, 58],
     [48, 48, 49, 49, 50, 50, 51, 57],
     [65, 65, 66, 66, 67, 67, 68, 68],
     [69, 69, 70, 70, 93, 93, 97, 97],
     [98, 98, 99, 99, 100, 100, 101, 101],
     [102, 102, 46, 46, 48, 57, 58, 58],
     [65, 65, 66, 66, 67, 67, 68, 68],
     [69, 69, 70, 70, 93, 93, 97, 97],
     [98, 98, 99, 99, 100, 100, 101, 101],
     [102, 102, 48, 57, 58, 58, 65, 65],
     [66, 66, 67, 67, 68, 68, 69, 69],
     [70, 70, 93, 93, 97, 97, 98, 98],
     [99, 99, 100, 100, 101, 101, 102, 102],
     [48, 57, 58, 58, 65, 65, 66, 66],
     [67, 67, 68, 68, 69, 69, 70, 70],
     [93, 93, 97, 97, 98, 98, 99, 99],
     [100, 100, 101, 101, 102, 102, 58, 58],
     [93, 93, 48, 48, 49, 49, 50, 50],
     [51, 57, 65, 65, 66, 66, 67, 67],
     [68, 68, 69, 69, 70, 70, 97, 97],
     [98, 98, 99, 99, 100, 100, 101, 101],
     [102, 102, 46, 46, 48, 57, 58, 58],
     [65, 65, 66, 66, 67, 67, 68, 68],
     [69, 69, 70, 70, 93, 93, 97, 97],
     [98, 98, 99, 99, 100, 100, 101, 101],
     [102, 102, 46, 46, 48, 57, 58, 58],
     [65, 65, 66, 66, 67, 67, 68, 68],
     [69, 69, 70, 70, 93, 93, 97, 97],
     [98, 98, 99, 99, 100, 100, 101, 101],
     [102, 102, 46, 46, 48, 57, 58, 58],
     [65, 65, 66, 66, 67, 67, 68, 68],
     [69, 69, 70, 70, 93, 93, 97, 97],
     [98, 98, 99, 99, 100, 100, 101, 101],
     [102, 102, 46, 46, 48, 52, 53, 53],
     [54, 57, 58, 58, 65, 65, 66, 66],
     [67, 67, 68, 68, 69, 69, 70, 70],
     [93, 93, 97, 97, 98, 98, 99, 99],
     [100, 100, 101, 101, 102, 102, 46, 46],
     [48, 53, 54, 57, 58, 58, 65, 65],
     [66, 66, 67, 67, 68, 68, 69, 69],
     [70, 70, 93, 93, 97, 97, 98, 98],
     [99, 99, 100, 100, 101, 101, 102, 102],
     [46, 46, 48, 57, 58, 58, 65, 65],
     [66, 66, 67, 67, 68, 68, 69, 69],
     [70, 70, 93, 93, 97, 97, 98, 98],
     [99, 99, 100, 100, 101, 101, 102, 102],
     [46, 46, 48, 57, 58, 58, 65, 65],
     [66, 66, 67, 67, 68, 68, 69, 69],
     [70, 70, 93, 93, 97, 97, 98, 98],
     [99, 99, 100, 100, 101, 101, 102, 102],
     [48, 57, 58, 58, 65, 65, 66, 66],
     [67, 67, 68, 68, 69, 69, 70, 70],
     [93, 93, 97, 97, 98, 98, 99, 99],
     [100, 100, 101, 101, 102, 102, 48, 57],
     [65, 65, 66, 66, 67, 67, 68, 68],
     [69, 69, 70, 70, 97, 97, 98, 98],
     [99, 99, 100, 100, 101, 101, 102, 102],
     [48, 57, 65, 65, 66, 66, 67, 67],
     [68, 68, 69, 69, 70, 70, 97, 97],
     [98, 98, 99, 99, 100, 100, 101, 101],
     [102, 102, 33, 33, 36, 36, 37, 37],
     [38, 38, 39, 39, 40, 40, 41, 41],
     [42, 42, 43, 43, 44, 44, 45, 45],
     [46, 46, 47, 47, 48, 57, 58, 58],
     [59, 59, 61, 61, 63, 63, 64, 64],
     [65, 90, 95, 95, 97, 122, 126, 126],
     [48, 57, 65, 65, 66, 66, 67, 67],
     [68, 68, 69, 69, 70, 70, 97, 97],
     [98, 98, 99, 99, 100, 100, 101, 101],
     [102, 102, 48, 57, 65, 65, 66, 66],
     [67, 67, 68, 68, 69, 69, 70, 70],
     [97, 97, 98, 98, 99, 99, 100, 100],
     [101, 101, 102, 102, 33, 33, 36, 36],
     [37, 37, 38, 38, 39, 39, 40, 40],
     [41, 41, 42, 42, 43, 43, 44, 44]]"

definition sup_cond_keys_29 :: "int list list" where
  "sup_cond_keys_29 =
    [[45, 45, 46, 46, 47, 47, 48, 48],
     [49, 49, 50, 50, 51, 57, 58, 58],
     [59, 59, 61, 61, 63, 63, 64, 64],
     [65, 90, 91, 91, 95, 95, 97, 122],
     [126, 126, 33, 33, 35, 35, 36, 36],
     [37, 37, 38, 38, 39, 39, 40, 40],
     [41, 41, 42, 42, 43, 43, 44, 44],
     [45, 45, 46, 46, 47, 47, 48, 57],
     [58, 58, 59, 59, 61, 61, 63, 63],
     [64, 64, 65, 90, 95, 95, 97, 122],
     [126, 126, 33, 33, 35, 35, 36, 36],
     [37, 37, 38, 38, 39, 39, 40, 40],
     [41, 41, 42, 42, 43, 43, 44, 44],
     [45, 45, 46, 46, 47, 47, 48, 48],
     [49, 49, 50, 50, 51, 57, 58, 58],
     [59, 59, 61, 61, 63, 63, 64, 64],
     [65, 90, 91, 91, 95, 95, 97, 122],
     [126, 126, 33, 33, 35, 35, 36, 36],
     [37, 37, 38, 38, 39, 39, 40, 40],
     [41, 41, 42, 42, 43, 43, 44, 44],
     [45, 45, 46, 46, 47, 47, 48, 57],
     [58, 58, 59, 59, 61, 61, 63, 63],
     [64, 64, 65, 90, 95, 95, 97, 122],
     [126, 126, 33, 33, 35, 35, 36, 36],
     [37, 37, 38, 38, 39, 39, 40, 40],
     [41, 41, 42, 42, 43, 43, 44, 44],
     [45, 45, 46, 46, 47, 47, 48, 57],
     [58, 58, 59, 59, 61, 61, 63, 63],
     [64, 64, 65, 90, 95, 95, 97, 122],
     [126, 126, 48, 57, 65, 65, 66, 66],
     [67, 67, 68, 68, 69, 69, 70, 70],
     [97, 97, 98, 98, 99, 99, 100, 100],
     [101, 101, 102, 102, 48, 57, 65, 65],
     [66, 66, 67, 67, 68, 68, 69, 69],
     [70, 70, 97, 97, 98, 98, 99, 99],
     [100, 100, 101, 101, 102, 102, 33, 33],
     [36, 36, 37, 37, 38, 38, 39, 39],
     [40, 40, 41, 41, 42, 42, 43, 43],
     [44, 44, 45, 45, 46, 46, 48, 57],
     [61, 61, 64, 64, 65, 90, 95, 95],
     [97, 122, 126, 126, 48, 57, 65, 65],
     [66, 66, 67, 67, 68, 68, 69, 69],
     [70, 70, 97, 97, 98, 98, 99, 99],
     [100, 100, 101, 101, 102, 102, 48, 57],
     [65, 65, 66, 66, 67, 67, 68, 68],
     [69, 69, 70, 70, 97, 97, 98, 98],
     [99, 99, 100, 100, 101, 101, 102, 102],
     [48, 48, 49, 49, 50, 50, 51, 57],
     [65, 90, 91, 91, 97, 122, 45, 45],
     [46, 46, 48, 57, 65, 90, 95, 95],
     [97, 122, 45, 45, 48, 57, 65, 90],
     [95, 95, 97, 122, 45, 45, 46, 46],
     [48, 57, 65, 90, 95, 95, 97, 122],
     [48, 57, 65, 90, 97, 122, 45, 45],
     [46, 46, 47, 47, 48, 57, 58, 58],
     [63, 63, 65, 90, 95, 95, 97, 122],
     [45, 45, 48, 57, 65, 90, 95, 95],
     [97, 122, 47, 47, 48, 57, 58, 58],
     [63, 63, 65, 90, 97, 122, 48, 48],
     [49, 53, 54, 54, 55, 57, 48, 48],
     [49, 57, 48, 48, 49, 57, 49, 57],
     [47, 47, 63, 63, 47, 47, 48, 57],
     [63, 63, 47, 47, 48, 57, 63, 63],
     [47, 47, 48, 57, 63, 63, 47, 47],
     [48, 57, 63, 63, 47, 47, 48, 52],
     [53, 53, 54, 57, 63, 63, 47, 47],
     [48, 52, 53, 53, 54, 57, 63, 63],
     [47, 47, 48, 50, 51, 51, 52, 57],
     [63, 63, 47, 47, 48, 53, 63, 63],
     [48, 48, 49, 49, 50, 50, 51, 57],
     [65, 90, 97, 122, 45, 45, 46, 46],
     [48, 57, 65, 90, 95, 95, 97, 122],
     [48, 48, 49, 49, 50, 50, 51, 57],
     [65, 90, 97, 122, 45, 45, 46, 46],
     [48, 57, 65, 90, 95, 95, 97, 122],
     [48, 48, 49, 49, 50, 50, 51, 57],
     [65, 90, 97, 122, 45, 45, 46, 46],
     [47, 47, 48, 57, 58, 58, 63, 63],
     [65, 90, 95, 95, 97, 122, 45, 45],
     [46, 46, 47, 47, 48, 57, 58, 58],
     [63, 63, 65, 90, 95, 95, 97, 122],
     [45, 45, 46, 46, 47, 47, 48, 57],
     [58, 58, 63, 63, 65, 90, 95, 95],
     [97, 122, 45, 45, 46, 46, 47, 47],
     [48, 52, 53, 53, 54, 57, 58, 58],
     [63, 63, 65, 90, 95, 95, 97, 122],
     [45, 45, 46, 46, 47, 47, 48, 53],
     [54, 57, 58, 58, 63, 63, 65, 90],
     [95, 95, 97, 122, 45, 45, 46, 46],
     [48, 57, 65, 90, 95, 95, 97, 122],
     [45, 45, 46, 46, 48, 57, 65, 90],
     [95, 95, 97, 122, 45, 45, 46, 46],
     [48, 52, 53, 53, 54, 57, 65, 90],
     [95, 95, 97, 122, 45, 45, 46, 46],
     [48, 53, 54, 57, 65, 90, 95, 95],
     [97, 122, 45, 45, 46, 46, 48, 57],
     [65, 90, 95, 95, 97, 122, 45, 45],
     [46, 46, 48, 57, 65, 90, 95, 95],
     [97, 122, 45, 45, 46, 46, 48, 52],
     [53, 53, 54, 57, 65, 90, 95, 95],
     [97, 122, 45, 45, 46, 46, 48, 53],
     [54, 57, 65, 90, 95, 95, 97, 122],
     [45, 45, 46, 46, 48, 57, 65, 90],
     [95, 95, 97, 122, 45, 45, 46, 46],
     [48, 57, 65, 90, 95, 95, 97, 122],
     [45, 45, 46, 46, 48, 52, 53, 53],
     [54, 57, 65, 90, 95, 95, 97, 122],
     [45, 45, 46, 46, 48, 53, 54, 57],
     [65, 90, 95, 95, 97, 122, 48, 57],
     [58, 58, 65, 65, 66, 66, 67, 67],
     [68, 68, 69, 69, 70, 70, 97, 97],
     [98, 98, 99, 99, 100, 100, 101, 101],
     [102, 102, 48, 57, 58, 58, 65, 65],
     [66, 66, 67, 67, 68, 68, 69, 69],
     [70, 70, 97, 97, 98, 98, 99, 99],
     [100, 100, 101, 101, 102, 102, 48, 57],
     [58, 58, 65, 65, 66, 66, 67, 67],
     [68, 68, 69, 69, 70, 70, 97, 97],
     [98, 98, 99, 99, 100, 100, 101, 101],
     [102, 102, 48, 57, 58, 58, 65, 65],
     [66, 66, 67, 67, 68, 68, 69, 69],
     [70, 70, 97, 97, 98, 98, 99, 99],
     [100, 100, 101, 101, 102, 102, 58, 58],
     [48, 57, 58, 58, 65, 65, 66, 66],
     [67, 67, 68, 68, 69, 69, 70, 70],
     [97, 97, 98, 98, 99, 99, 100, 100],
     [101, 101, 102, 102, 48, 57, 58, 58],
     [65, 65, 66, 66, 67, 67, 68, 68],
     [69, 69, 70, 70, 97, 97, 98, 98],
     [99, 99, 100, 100, 101, 101, 102, 102],
     [48, 57, 58, 58, 65, 65, 66, 66],
     [67, 67, 68, 68, 69, 69, 70, 70],
     [97, 97, 98, 98, 99, 99, 100, 100],
     [101, 101, 102, 102, 48, 57, 58, 58],
     [65, 65, 66, 66, 67, 67, 68, 68],
     [69, 69, 70, 70, 97, 97, 98, 98],
     [99, 99, 100, 100, 101, 101, 102, 102],
     [58, 58, 48, 57, 58, 58, 65, 65],
     [66, 66, 67, 67, 68, 68, 69, 69],
     [70, 70, 97, 97, 98, 98, 99, 99],
     [100, 100, 101, 101, 102, 102, 48, 57],
     [58, 58, 65, 65, 66, 66, 67, 67],
     [68, 68, 69, 69, 70, 70, 97, 97],
     [98, 98, 99, 99, 100, 100, 101, 101],
     [102, 102, 48, 57, 58, 58, 65, 65],
     [66, 66, 67, 67, 68, 68, 69, 69],
     [70, 70, 97, 97, 98, 98, 99, 99],
     [100, 100, 101, 101, 102, 102, 48, 57],
     [58, 58, 65, 65, 66, 66, 67, 67],
     [68, 68, 69, 69, 70, 70, 97, 97]]"

definition sup_cond_keys_30 :: "int list list" where
  "sup_cond_keys_30 =
    [[98, 98, 99, 99, 100, 100, 101, 101],
     [102, 102, 58, 58, 48, 57, 58, 58],
     [65, 65, 66, 66, 67, 67, 68, 68],
     [69, 69, 70, 70, 97, 97, 98, 98],
     [99, 99, 100, 100, 101, 101, 102, 102],
     [48, 57, 58, 58, 65, 65, 66, 66],
     [67, 67, 68, 68, 69, 69, 70, 70],
     [97, 97, 98, 98, 99, 99, 100, 100],
     [101, 101, 102, 102, 48, 57, 58, 58],
     [65, 65, 66, 66, 67, 67, 68, 68],
     [69, 69, 70, 70, 97, 97, 98, 98],
     [99, 99, 100, 100, 101, 101, 102, 102],
     [48, 57, 58, 58, 65, 65, 66, 66],
     [67, 67, 68, 68, 69, 69, 70, 70],
     [97, 97, 98, 98, 99, 99, 100, 100],
     [101, 101, 102, 102, 58, 58, 48, 57],
     [58, 58, 65, 65, 66, 66, 67, 67],
     [68, 68, 69, 69, 70, 70, 97, 97],
     [98, 98, 99, 99, 100, 100, 101, 101],
     [102, 102, 48, 57, 58, 58, 65, 65],
     [66, 66, 67, 67, 68, 68, 69, 69],
     [70, 70, 97, 97, 98, 98, 99, 99],
     [100, 100, 101, 101, 102, 102, 48, 57],
     [58, 58, 65, 65, 66, 66, 67, 67],
     [68, 68, 69, 69, 70, 70, 97, 97],
     [98, 98, 99, 99, 100, 100, 101, 101],
     [102, 102, 48, 57, 58, 58, 65, 65],
     [66, 66, 67, 67, 68, 68, 69, 69],
     [70, 70, 97, 97, 98, 98, 99, 99],
     [100, 100, 101, 101, 102, 102, 58, 58],
     [48, 57, 58, 58, 65, 65, 66, 66],
     [67, 67, 68, 68, 69, 69, 70, 70],
     [97, 97, 98, 98, 99, 99, 100, 100],
     [101, 101, 102, 102, 48, 57, 58, 58],
     [65, 65, 66, 66, 67, 67, 68, 68],
     [69, 69, 70, 70, 97, 97, 98, 98],
     [99, 99, 100, 100, 101, 101, 102, 102],
     [48, 57, 58, 58, 65, 65, 66, 66],
     [67, 67, 68, 68, 69, 69, 70, 70],
     [97, 97, 98, 98, 99, 99, 100, 100],
     [101, 101, 102, 102, 48, 57, 58, 58],
     [65, 65, 66, 66, 67, 67, 68, 68],
     [69, 69, 70, 70, 97, 97, 98, 98],
     [99, 99, 100, 100, 101, 101, 102, 102],
     [58, 58, 48, 48, 49, 49, 50, 50],
     [51, 57, 58, 58, 65, 65, 66, 66],
     [67, 67, 68, 68, 69, 69, 70, 70],
     [97, 97, 98, 98, 99, 99, 100, 100],
     [101, 101, 102, 102, 46, 46, 48, 57],
     [58, 58, 65, 65, 66, 66, 67, 67],
     [68, 68, 69, 69, 70, 70, 97, 97],
     [98, 98, 99, 99, 100, 100, 101, 101],
     [102, 102, 48, 48, 49, 49, 50, 50],
     [51, 57, 46, 46, 48, 48, 49, 49],
     [50, 50, 51, 57, 46, 46, 48, 48],
     [49, 49, 50, 50, 51, 57, 93, 93],
     [47, 47, 58, 58, 63, 63, 48, 57],
     [93, 93, 48, 57, 93, 93, 48, 52],
     [53, 53, 54, 57, 93, 93, 48, 53],
     [93, 93, 46, 46, 48, 57, 46, 46],
     [48, 57, 46, 46, 48, 52, 53, 53],
     [54, 57, 46, 46, 48, 53, 46, 46],
     [48, 57, 46, 46, 48, 57, 46, 46],
     [48, 52, 53, 53, 54, 57, 46, 46],
     [48, 53, 48, 57, 58, 58, 65, 65],
     [66, 66, 67, 67, 68, 68, 69, 69],
     [70, 70, 97, 97, 98, 98, 99, 99],
     [100, 100, 101, 101, 102, 102, 48, 57],
     [58, 58, 65, 65, 66, 66, 67, 67],
     [68, 68, 69, 69, 70, 70, 97, 97],
     [98, 98, 99, 99, 100, 100, 101, 101],
     [102, 102, 58, 58, 48, 57, 58, 58],
     [65, 65, 66, 66, 67, 67, 68, 68],
     [69, 69, 70, 70, 97, 97, 98, 98],
     [99, 99, 100, 100, 101, 101, 102, 102],
     [48, 57, 65, 65, 66, 66, 67, 67],
     [68, 68, 69, 69, 70, 70, 93, 93],
     [97, 97, 98, 98, 99, 99, 100, 100],
     [101, 101, 102, 102, 48, 57, 65, 65],
     [66, 66, 67, 67, 68, 68, 69, 69],
     [70, 70, 93, 93, 97, 97, 98, 98],
     [99, 99, 100, 100, 101, 101, 102, 102],
     [48, 57, 65, 65, 66, 66, 67, 67],
     [68, 68, 69, 69, 70, 70, 93, 93],
     [97, 97, 98, 98, 99, 99, 100, 100],
     [101, 101, 102, 102, 46, 46, 48, 57],
     [58, 58, 65, 65, 66, 66, 67, 67],
     [68, 68, 69, 69, 70, 70, 97, 97],
     [98, 98, 99, 99, 100, 100, 101, 101],
     [102, 102, 46, 46, 48, 57, 58, 58],
     [65, 65, 66, 66, 67, 67, 68, 68],
     [69, 69, 70, 70, 97, 97, 98, 98],
     [99, 99, 100, 100, 101, 101, 102, 102],
     [46, 46, 48, 57, 58, 58, 65, 65],
     [66, 66, 67, 67, 68, 68, 69, 69],
     [70, 70, 97, 97, 98, 98, 99, 99],
     [100, 100, 101, 101, 102, 102, 46, 46],
     [48, 52, 53, 53, 54, 57, 58, 58],
     [65, 65, 66, 66, 67, 67, 68, 68],
     [69, 69, 70, 70, 97, 97, 98, 98],
     [99, 99, 100, 100, 101, 101, 102, 102],
     [46, 46, 48, 53, 54, 57, 58, 58],
     [65, 65, 66, 66, 67, 67, 68, 68],
     [69, 69, 70, 70, 97, 97, 98, 98],
     [99, 99, 100, 100, 101, 101, 102, 102],
     [46, 46, 48, 57, 58, 58, 65, 65],
     [66, 66, 67, 67, 68, 68, 69, 69],
     [70, 70, 97, 97, 98, 98, 99, 99],
     [100, 100, 101, 101, 102, 102, 46, 46],
     [48, 57, 58, 58, 65, 65, 66, 66],
     [67, 67, 68, 68, 69, 69, 70, 70],
     [97, 97, 98, 98, 99, 99, 100, 100],
     [101, 101, 102, 102, 48, 57, 65, 65],
     [66, 66, 67, 67, 68, 68, 69, 69],
     [70, 70, 93, 93, 97, 97, 98, 98],
     [99, 99, 100, 100, 101, 101, 102, 102],
     [48, 57, 58, 58, 65, 65, 66, 66],
     [67, 67, 68, 68, 69, 69, 70, 70],
     [97, 97, 98, 98, 99, 99, 100, 100],
     [101, 101, 102, 102, 48, 48, 49, 49],
     [50, 50, 51, 57, 65, 65, 66, 66],
     [67, 67, 68, 68, 69, 69, 70, 70],
     [93, 93, 97, 97, 98, 98, 99, 99],
     [100, 100, 101, 101, 102, 102, 46, 46],
     [48, 57, 58, 58, 65, 65, 66, 66],
     [67, 67, 68, 68, 69, 69, 70, 70],
     [93, 93, 97, 97, 98, 98, 99, 99],
     [100, 100, 101, 101, 102, 102, 48, 57],
     [58, 58, 65, 65, 66, 66, 67, 67],
     [68, 68, 69, 69, 70, 70, 93, 93],
     [97, 97, 98, 98, 99, 99, 100, 100],
     [101, 101, 102, 102, 48, 57, 58, 58],
     [65, 65, 66, 66, 67, 67, 68, 68],
     [69, 69, 70, 70, 93, 93, 97, 97],
     [98, 98, 99, 99, 100, 100, 101, 101],
     [102, 102, 58, 58, 93, 93, 48, 57],
     [65, 65, 66, 66, 67, 67, 68, 68],
     [69, 69, 70, 70, 97, 97, 98, 98],
     [99, 99, 100, 100, 101, 101, 102, 102],
     [46, 46, 48, 57, 58, 58, 65, 65],
     [66, 66, 67, 67, 68, 68, 69, 69],
     [70, 70, 93, 93, 97, 97, 98, 98],
     [99, 99, 100, 100, 101, 101, 102, 102],
     [46, 46, 48, 57, 58, 58, 65, 65],
     [66, 66, 67, 67, 68, 68, 69, 69],
     [70, 70, 93, 93, 97, 97, 98, 98],
     [99, 99, 100, 100, 101, 101, 102, 102],
     [46, 46, 48, 57, 58, 58, 65, 65],
     [66, 66, 67, 67, 68, 68, 69, 69],
     [70, 70, 93, 93, 97, 97, 98, 98]]"

definition sup_cond_keys_31 :: "int list list" where
  "sup_cond_keys_31 =
    [[99, 99, 100, 100, 101, 101, 102, 102],
     [46, 46, 48, 52, 53, 53, 54, 57],
     [58, 58, 65, 65, 66, 66, 67, 67],
     [68, 68, 69, 69, 70, 70, 93, 93],
     [97, 97, 98, 98, 99, 99, 100, 100],
     [101, 101, 102, 102, 46, 46, 48, 53],
     [54, 57, 58, 58, 65, 65, 66, 66],
     [67, 67, 68, 68, 69, 69, 70, 70],
     [93, 93, 97, 97, 98, 98, 99, 99],
     [100, 100, 101, 101, 102, 102, 46, 46],
     [48, 57, 58, 58, 65, 65, 66, 66],
     [67, 67, 68, 68, 69, 69, 70, 70],
     [93, 93, 97, 97, 98, 98, 99, 99],
     [100, 100, 101, 101, 102, 102, 46, 46],
     [48, 57, 58, 58, 65, 65, 66, 66],
     [67, 67, 68, 68, 69, 69, 70, 70],
     [93, 93, 97, 97, 98, 98, 99, 99],
     [100, 100, 101, 101, 102, 102, 48, 57],
     [58, 58, 65, 65, 66, 66, 67, 67],
     [68, 68, 69, 69, 70, 70, 93, 93],
     [97, 97, 98, 98, 99, 99, 100, 100],
     [101, 101, 102, 102, 48, 48, 49, 49],
     [50, 50, 51, 57, 65, 65, 66, 66],
     [67, 67, 68, 68, 69, 69, 70, 70],
     [93, 93, 97, 97, 98, 98, 99, 99],
     [100, 100, 101, 101, 102, 102, 46, 46],
     [48, 57, 58, 58, 65, 65, 66, 66],
     [67, 67, 68, 68, 69, 69, 70, 70],
     [93, 93, 97, 97, 98, 98, 99, 99],
     [100, 100, 101, 101, 102, 102, 48, 57],
     [58, 58, 65, 65, 66, 66, 67, 67],
     [68, 68, 69, 69, 70, 70, 93, 93],
     [97, 97, 98, 98, 99, 99, 100, 100],
     [101, 101, 102, 102, 48, 57, 58, 58],
     [65, 65, 66, 66, 67, 67, 68, 68],
     [69, 69, 70, 70, 93, 93, 97, 97],
     [98, 98, 99, 99, 100, 100, 101, 101],
     [102, 102, 58, 58, 93, 93, 48, 48],
     [49, 49, 50, 50, 51, 57, 65, 65],
     [66, 66, 67, 67, 68, 68, 69, 69],
     [70, 70, 97, 97, 98, 98, 99, 99],
     [100, 100, 101, 101, 102, 102, 46, 46],
     [48, 57, 58, 58, 65, 65, 66, 66],
     [67, 67, 68, 68, 69, 69, 70, 70],
     [93, 93, 97, 97, 98, 98, 99, 99],
     [100, 100, 101, 101, 102, 102, 46, 46],
     [48, 57, 58, 58, 65, 65, 66, 66],
     [67, 67, 68, 68, 69, 69, 70, 70],
     [93, 93, 97, 97, 98, 98, 99, 99],
     [100, 100, 101, 101, 102, 102, 46, 46],
     [48, 57, 58, 58, 65, 65, 66, 66],
     [67, 67, 68, 68, 69, 69, 70, 70],
     [93, 93, 97, 97, 98, 98, 99, 99],
     [100, 100, 101, 101, 102, 102, 46, 46],
     [48, 52, 53, 53, 54, 57, 58, 58],
     [65, 65, 66, 66, 67, 67, 68, 68],
     [69, 69, 70, 70, 93, 93, 97, 97],
     [98, 98, 99, 99, 100, 100, 101, 101],
     [102, 102, 46, 46, 48, 53, 54, 57],
     [58, 58, 65, 65, 66, 66, 67, 67],
     [68, 68, 69, 69, 70, 70, 93, 93],
     [97, 97, 98, 98, 99, 99, 100, 100],
     [101, 101, 102, 102, 46, 46, 48, 57],
     [58, 58, 65, 65, 66, 66, 67, 67],
     [68, 68, 69, 69, 70, 70, 93, 93],
     [97, 97, 98, 98, 99, 99, 100, 100],
     [101, 101, 102, 102, 46, 46, 48, 57],
     [58, 58, 65, 65, 66, 66, 67, 67],
     [68, 68, 69, 69, 70, 70, 93, 93],
     [97, 97, 98, 98, 99, 99, 100, 100],
     [101, 101, 102, 102, 48, 57, 58, 58],
     [65, 65, 66, 66, 67, 67, 68, 68],
     [69, 69, 70, 70, 93, 93, 97, 97],
     [98, 98, 99, 99, 100, 100, 101, 101],
     [102, 102, 48, 48, 49, 49, 50, 50],
     [51, 57, 65, 65, 66, 66, 67, 67],
     [68, 68, 69, 69, 70, 70, 93, 93],
     [97, 97, 98, 98, 99, 99, 100, 100],
     [101, 101, 102, 102, 46, 46, 48, 57],
     [58, 58, 65, 65, 66, 66, 67, 67],
     [68, 68, 69, 69, 70, 70, 93, 93],
     [97, 97, 98, 98, 99, 99, 100, 100],
     [101, 101, 102, 102, 48, 57, 58, 58],
     [65, 65, 66, 66, 67, 67, 68, 68],
     [69, 69, 70, 70, 93, 93, 97, 97],
     [98, 98, 99, 99, 100, 100, 101, 101],
     [102, 102, 48, 57, 58, 58, 65, 65],
     [66, 66, 67, 67, 68, 68, 69, 69],
     [70, 70, 93, 93, 97, 97, 98, 98],
     [99, 99, 100, 100, 101, 101, 102, 102],
     [58, 58, 93, 93, 48, 48, 49, 49],
     [50, 50, 51, 57, 65, 65, 66, 66],
     [67, 67, 68, 68, 69, 69, 70, 70],
     [97, 97, 98, 98, 99, 99, 100, 100],
     [101, 101, 102, 102, 46, 46, 48, 57],
     [58, 58, 65, 65, 66, 66, 67, 67],
     [68, 68, 69, 69, 70, 70, 93, 93],
     [97, 97, 98, 98, 99, 99, 100, 100],
     [101, 101, 102, 102, 46, 46, 48, 57],
     [58, 58, 65, 65, 66, 66, 67, 67],
     [68, 68, 69, 69, 70, 70, 93, 93],
     [97, 97, 98, 98, 99, 99, 100, 100],
     [101, 101, 102, 102, 46, 46, 48, 57],
     [58, 58, 65, 65, 66, 66, 67, 67],
     [68, 68, 69, 69, 70, 70, 93, 93],
     [97, 97, 98, 98, 99, 99, 100, 100],
     [101, 101, 102, 102, 46, 46, 48, 52],
     [53, 53, 54, 57, 58, 58, 65, 65],
     [66, 66, 67, 67, 68, 68, 69, 69],
     [70, 70, 93, 93, 97, 97, 98, 98],
     [99, 99, 100, 100, 101, 101, 102, 102],
     [46, 46, 48, 53, 54, 57, 58, 58],
     [65, 65, 66, 66, 67, 67, 68, 68],
     [69, 69, 70, 70, 93, 93, 97, 97],
     [98, 98, 99, 99, 100, 100, 101, 101],
     [102, 102, 46, 46, 48, 57, 58, 58],
     [65, 65, 66, 66, 67, 67, 68, 68],
     [69, 69, 70, 70, 93, 93, 97, 97],
     [98, 98, 99, 99, 100, 100, 101, 101],
     [102, 102, 46, 46, 48, 57, 58, 58],
     [65, 65, 66, 66, 67, 67, 68, 68],
     [69, 69, 70, 70, 93, 93, 97, 97],
     [98, 98, 99, 99, 100, 100, 101, 101],
     [102, 102, 48, 57, 58, 58, 65, 65],
     [66, 66, 67, 67, 68, 68, 69, 69],
     [70, 70, 93, 93, 97, 97, 98, 98],
     [99, 99, 100, 100, 101, 101, 102, 102],
     [48, 48, 49, 49, 50, 50, 51, 57],
     [65, 65, 66, 66, 67, 67, 68, 68],
     [69, 69, 70, 70, 93, 93, 97, 97],
     [98, 98, 99, 99, 100, 100, 101, 101],
     [102, 102, 46, 46, 48, 57, 58, 58],
     [65, 65, 66, 66, 67, 67, 68, 68],
     [69, 69, 70, 70, 93, 93, 97, 97],
     [98, 98, 99, 99, 100, 100, 101, 101],
     [102, 102, 48, 57, 58, 58, 65, 65],
     [66, 66, 67, 67, 68, 68, 69, 69],
     [70, 70, 93, 93, 97, 97, 98, 98],
     [99, 99, 100, 100, 101, 101, 102, 102],
     [48, 57, 58, 58, 65, 65, 66, 66],
     [67, 67, 68, 68, 69, 69, 70, 70],
     [93, 93, 97, 97, 98, 98, 99, 99],
     [100, 100, 101, 101, 102, 102, 58, 58],
     [93, 93, 48, 48, 49, 49, 50, 50],
     [51, 57, 65, 65, 66, 66, 67, 67],
     [68, 68, 69, 69, 70, 70, 97, 97],
     [98, 98, 99, 99, 100, 100, 101, 101],
     [102, 102, 46, 46, 48, 57, 58, 58],
     [65, 65, 66, 66, 67, 67, 68, 68],
     [69, 69, 70, 70, 93, 93, 97, 97]]"

definition sup_cond_keys_32 :: "int list list" where
  "sup_cond_keys_32 =
    [[98, 98, 99, 99, 100, 100, 101, 101],
     [102, 102, 46, 46, 48, 57, 58, 58],
     [65, 65, 66, 66, 67, 67, 68, 68],
     [69, 69, 70, 70, 93, 93, 97, 97],
     [98, 98, 99, 99, 100, 100, 101, 101],
     [102, 102, 46, 46, 48, 57, 58, 58],
     [65, 65, 66, 66, 67, 67, 68, 68],
     [69, 69, 70, 70, 93, 93, 97, 97],
     [98, 98, 99, 99, 100, 100, 101, 101],
     [102, 102, 46, 46, 48, 52, 53, 53],
     [54, 57, 58, 58, 65, 65, 66, 66],
     [67, 67, 68, 68, 69, 69, 70, 70],
     [93, 93, 97, 97, 98, 98, 99, 99],
     [100, 100, 101, 101, 102, 102, 46, 46],
     [48, 53, 54, 57, 58, 58, 65, 65],
     [66, 66, 67, 67, 68, 68, 69, 69],
     [70, 70, 93, 93, 97, 97, 98, 98],
     [99, 99, 100, 100, 101, 101, 102, 102],
     [46, 46, 48, 57, 58, 58, 65, 65],
     [66, 66, 67, 67, 68, 68, 69, 69],
     [70, 70, 93, 93, 97, 97, 98, 98],
     [99, 99, 100, 100, 101, 101, 102, 102],
     [46, 46, 48, 57, 58, 58, 65, 65],
     [66, 66, 67, 67, 68, 68, 69, 69],
     [70, 70, 93, 93, 97, 97, 98, 98],
     [99, 99, 100, 100, 101, 101, 102, 102],
     [48, 57, 58, 58, 65, 65, 66, 66],
     [67, 67, 68, 68, 69, 69, 70, 70],
     [93, 93, 97, 97, 98, 98, 99, 99],
     [100, 100, 101, 101, 102, 102, 48, 48],
     [49, 49, 50, 50, 51, 57, 65, 65],
     [66, 66, 67, 67, 68, 68, 69, 69],
     [70, 70, 93, 93, 97, 97, 98, 98],
     [99, 99, 100, 100, 101, 101, 102, 102],
     [46, 46, 48, 57, 58, 58, 65, 65],
     [66, 66, 67, 67, 68, 68, 69, 69],
     [70, 70, 93, 93, 97, 97, 98, 98],
     [99, 99, 100, 100, 101, 101, 102, 102],
     [48, 57, 58, 58, 65, 65, 66, 66],
     [67, 67, 68, 68, 69, 69, 70, 70],
     [93, 93, 97, 97, 98, 98, 99, 99],
     [100, 100, 101, 101, 102, 102, 48, 57],
     [58, 58, 65, 65, 66, 66, 67, 67],
     [68, 68, 69, 69, 70, 70, 93, 93],
     [97, 97, 98, 98, 99, 99, 100, 100],
     [101, 101, 102, 102, 58, 58, 93, 93],
     [48, 48, 49, 49, 50, 50, 51, 57],
     [65, 65, 66, 66, 67, 67, 68, 68],
     [69, 69, 70, 70, 97, 97, 98, 98],
     [99, 99, 100, 100, 101, 101, 102, 102],
     [46, 46, 48, 57, 58, 58, 65, 65],
     [66, 66, 67, 67, 68, 68, 69, 69],
     [70, 70, 93, 93, 97, 97, 98, 98],
     [99, 99, 100, 100, 101, 101, 102, 102],
     [46, 46, 48, 57, 58, 58, 65, 65],
     [66, 66, 67, 67, 68, 68, 69, 69],
     [70, 70, 93, 93, 97, 97, 98, 98],
     [99, 99, 100, 100, 101, 101, 102, 102],
     [46, 46, 48, 57, 58, 58, 65, 65],
     [66, 66, 67, 67, 68, 68, 69, 69],
     [70, 70, 93, 93, 97, 97, 98, 98],
     [99, 99, 100, 100, 101, 101, 102, 102],
     [46, 46, 48, 52, 53, 53, 54, 57],
     [58, 58, 65, 65, 66, 66, 67, 67],
     [68, 68, 69, 69, 70, 70, 93, 93],
     [97, 97, 98, 98, 99, 99, 100, 100],
     [101, 101, 102, 102, 46, 46, 48, 53],
     [54, 57, 58, 58, 65, 65, 66, 66],
     [67, 67, 68, 68, 69, 69, 70, 70],
     [93, 93, 97, 97, 98, 98, 99, 99],
     [100, 100, 101, 101, 102, 102, 46, 46],
     [48, 57, 58, 58, 65, 65, 66, 66],
     [67, 67, 68, 68, 69, 69, 70, 70],
     [93, 93, 97, 97, 98, 98, 99, 99],
     [100, 100, 101, 101, 102, 102, 46, 46],
     [48, 57, 58, 58, 65, 65, 66, 66],
     [67, 67, 68, 68, 69, 69, 70, 70],
     [93, 93, 97, 97, 98, 98, 99, 99],
     [100, 100, 101, 101, 102, 102, 48, 57],
     [58, 58, 65, 65, 66, 66, 67, 67],
     [68, 68, 69, 69, 70, 70, 93, 93],
     [97, 97, 98, 98, 99, 99, 100, 100],
     [101, 101, 102, 102, 58, 58, 48, 48],
     [49, 49, 50, 50, 51, 57, 65, 65],
     [66, 66, 67, 67, 68, 68, 69, 69],
     [70, 70, 93, 93, 97, 97, 98, 98],
     [99, 99, 100, 100, 101, 101, 102, 102],
     [46, 46, 48, 57, 58, 58, 65, 65],
     [66, 66, 67, 67, 68, 68, 69, 69],
     [70, 70, 93, 93, 97, 97, 98, 98],
     [99, 99, 100, 100, 101, 101, 102, 102],
     [48, 57, 58, 58, 65, 65, 66, 66],
     [67, 67, 68, 68, 69, 69, 70, 70],
     [93, 93, 97, 97, 98, 98, 99, 99],
     [100, 100, 101, 101, 102, 102, 48, 57],
     [58, 58, 65, 65, 66, 66, 67, 67],
     [68, 68, 69, 69, 70, 70, 93, 93],
     [97, 97, 98, 98, 99, 99, 100, 100],
     [101, 101, 102, 102, 58, 58, 93, 93],
     [48, 48, 49, 49, 50, 50, 51, 57],
     [65, 65, 66, 66, 67, 67, 68, 68],
     [69, 69, 70, 70, 97, 97, 98, 98],
     [99, 99, 100, 100, 101, 101, 102, 102],
     [46, 46, 48, 57, 58, 58, 65, 65],
     [66, 66, 67, 67, 68, 68, 69, 69],
     [70, 70, 93, 93, 97, 97, 98, 98],
     [99, 99, 100, 100, 101, 101, 102, 102],
     [46, 46, 48, 57, 58, 58, 65, 65],
     [66, 66, 67, 67, 68, 68, 69, 69],
     [70, 70, 93, 93, 97, 97, 98, 98],
     [99, 99, 100, 100, 101, 101, 102, 102],
     [46, 46, 48, 57, 58, 58, 65, 65],
     [66, 66, 67, 67, 68, 68, 69, 69],
     [70, 70, 93, 93, 97, 97, 98, 98],
     [99, 99, 100, 100, 101, 101, 102, 102],
     [46, 46, 48, 52, 53, 53, 54, 57],
     [58, 58, 65, 65, 66, 66, 67, 67],
     [68, 68, 69, 69, 70, 70, 93, 93],
     [97, 97, 98, 98, 99, 99, 100, 100],
     [101, 101, 102, 102, 46, 46, 48, 53],
     [54, 57, 58, 58, 65, 65, 66, 66],
     [67, 67, 68, 68, 69, 69, 70, 70],
     [93, 93, 97, 97, 98, 98, 99, 99],
     [100, 100, 101, 101, 102, 102, 46, 46],
     [48, 57, 58, 58, 65, 65, 66, 66],
     [67, 67, 68, 68, 69, 69, 70, 70],
     [93, 93, 97, 97, 98, 98, 99, 99],
     [100, 100, 101, 101, 102, 102, 46, 46],
     [48, 57, 58, 58, 65, 65, 66, 66],
     [67, 67, 68, 68, 69, 69, 70, 70],
     [93, 93, 97, 97, 98, 98, 99, 99],
     [100, 100, 101, 101, 102, 102, 48, 57],
     [58, 58, 65, 65, 66, 66, 67, 67],
     [68, 68, 69, 69, 70, 70, 93, 93],
     [97, 97, 98, 98, 99, 99, 100, 100],
     [101, 101, 102, 102, 48, 57, 65, 65],
     [66, 66, 67, 67, 68, 68, 69, 69],
     [70, 70, 97, 97, 98, 98, 99, 99],
     [100, 100, 101, 101, 102, 102, 48, 57],
     [65, 65, 66, 66, 67, 67, 68, 68],
     [69, 69, 70, 70, 97, 97, 98, 98],
     [99, 99, 100, 100, 101, 101, 102, 102],
     [33, 33, 36, 36, 37, 37, 38, 38],
     [39, 39, 40, 40, 41, 41, 42, 42],
     [43, 43, 44, 44, 45, 45, 46, 46],
     [47, 47, 48, 57, 58, 58, 59, 59],
     [61, 61, 63, 63, 64, 64, 65, 90],
     [95, 95, 97, 122, 126, 126, 48, 57],
     [65, 65, 66, 66, 67, 67, 68, 68],
     [69, 69, 70, 70, 97, 97, 98, 98]]"

definition sup_cond_keys_33 :: "int list list" where
  "sup_cond_keys_33 =
    [[99, 99, 100, 100, 101, 101, 102, 102],
     [48, 57, 65, 65, 66, 66, 67, 67],
     [68, 68, 69, 69, 70, 70, 97, 97],
     [98, 98, 99, 99, 100, 100, 101, 101],
     [102, 102, 33, 33, 36, 36, 37, 37],
     [38, 38, 39, 39, 40, 40, 41, 41],
     [42, 42, 43, 43, 44, 44, 45, 45],
     [46, 46, 47, 47, 48, 48, 49, 49],
     [50, 50, 51, 57, 58, 58, 59, 59],
     [61, 61, 63, 63, 64, 64, 65, 90],
     [91, 91, 95, 95, 97, 122, 126, 126],
     [43, 43, 45, 45, 46, 46, 48, 57],
     [58, 58, 65, 72, 73, 73, 74, 90],
     [97, 104, 105, 105, 106, 122, 43, 43],
     [45, 45, 46, 46, 48, 57, 58, 58],
     [65, 79, 80, 80, 81, 90, 97, 111],
     [112, 112, 113, 122, 43, 43, 45, 45],
     [46, 46, 48, 57, 58, 58, 65, 82],
     [83, 83, 84, 90, 97, 114, 115, 115],
     [116, 122, 33, 33, 35, 35, 36, 36],
     [37, 37, 38, 38, 39, 39, 40, 40],
     [41, 41, 42, 42, 43, 43, 44, 44],
     [45, 45, 46, 46, 47, 47, 48, 48],
     [49, 49, 50, 50, 51, 57, 59, 59],
     [61, 61, 63, 63, 65, 90, 91, 91],
     [95, 95, 97, 122, 126, 126, 33, 33],
     [35, 35, 36, 36, 37, 37, 38, 38],
     [39, 39, 40, 40, 41, 41, 42, 42],
     [43, 43, 44, 44, 45, 45, 46, 46],
     [47, 47, 48, 57, 58, 58, 59, 59],
     [61, 61, 63, 63, 64, 64, 65, 90],
     [95, 95, 97, 122, 126, 126, 48, 57],
     [65, 65, 66, 66, 67, 67, 68, 68],
     [69, 69, 70, 70, 97, 97, 98, 98],
     [99, 99, 100, 100, 101, 101, 102, 102],
     [48, 57, 65, 65, 66, 66, 67, 67],
     [68, 68, 69, 69, 70, 70, 97, 97],
     [98, 98, 99, 99, 100, 100, 101, 101],
     [102, 102, 33, 33, 36, 36, 37, 37],
     [38, 38, 39, 39, 40, 40, 41, 41],
     [42, 42, 43, 43, 44, 44, 45, 45],
     [46, 46, 48, 57, 61, 61, 64, 64],
     [65, 90, 95, 95, 97, 122, 126, 126],
     [48, 57, 65, 65, 66, 66, 67, 67],
     [68, 68, 69, 69, 70, 70, 97, 97],
     [98, 98, 99, 99, 100, 100, 101, 101],
     [102, 102, 48, 57, 65, 65, 66, 66],
     [67, 67, 68, 68, 69, 69, 70, 70],
     [97, 97, 98, 98, 99, 99, 100, 100],
     [101, 101, 102, 102, 48, 48, 49, 49],
     [50, 50, 51, 57, 65, 90, 91, 91],
     [97, 122, 45, 45, 46, 46, 48, 57],
     [65, 90, 95, 95, 97, 122, 45, 45],
     [48, 57, 65, 90, 95, 95, 97, 122],
     [45, 45, 46, 46, 48, 57, 65, 90],
     [95, 95, 97, 122, 48, 57, 65, 90],
     [97, 122, 45, 45, 46, 46, 48, 57],
     [58, 58, 59, 59, 63, 63, 65, 90],
     [95, 95, 97, 122, 45, 45, 48, 57],
     [65, 90, 95, 95, 97, 122, 48, 57],
     [58, 58, 59, 59, 63, 63, 65, 90],
     [97, 122, 48, 48, 49, 53, 54, 54],
     [55, 57, 48, 48, 49, 57, 48, 48],
     [49, 57, 49, 57, 59, 59, 63, 63],
     [33, 33, 36, 36, 37, 37, 38, 38],
     [39, 39, 40, 40, 41, 41, 42, 42],
     [43, 43, 45, 45, 46, 46, 47, 47],
     [48, 57, 58, 58, 65, 75, 76, 76],
     [77, 78, 79, 79, 80, 83, 84, 84],
     [85, 90, 91, 91, 93, 93, 95, 95],
     [97, 107, 108, 108, 109, 110, 111, 111],
     [112, 115, 116, 116, 117, 122, 126, 126],
     [33, 33, 36, 36, 37, 37, 38, 38],
     [39, 39, 40, 40, 41, 41, 42, 42],
     [43, 43, 45, 45, 46, 46, 47, 47],
     [48, 57, 58, 58, 59, 59, 61, 61],
     [63, 63, 65, 90, 91, 91, 93, 93],
     [95, 95, 97, 122, 126, 126, 48, 57],
     [65, 65, 66, 66, 67, 67, 68, 68],
     [69, 69, 70, 70, 97, 97, 98, 98],
     [99, 99, 100, 100, 101, 101, 102, 102],
     [48, 57, 65, 65, 66, 66, 67, 67],
     [68, 68, 69, 69, 70, 70, 97, 97],
     [98, 98, 99, 99, 100, 100, 101, 101],
     [102, 102, 33, 33, 36, 36, 37, 37],
     [38, 38, 39, 39, 40, 40, 41, 41],
     [42, 42, 43, 43, 45, 45, 46, 46],
     [47, 47, 48, 57, 58, 58, 59, 59],
     [61, 61, 63, 63, 65, 90, 91, 91],
     [93, 93, 95, 95, 97, 122, 126, 126],
     [33, 33, 36, 36, 37, 37, 38, 38],
     [39, 39, 40, 40, 41, 41, 42, 42],
     [43, 43, 45, 45, 46, 46, 47, 47],
     [48, 57, 58, 58, 59, 59, 63, 63],
     [65, 90, 91, 91, 93, 93, 95, 95],
     [97, 122, 126, 126, 48, 57, 65, 65],
     [66, 66, 67, 67, 68, 68, 69, 69],
     [70, 70, 97, 97, 98, 98, 99, 99],
     [100, 100, 101, 101, 102, 102, 48, 57],
     [65, 65, 66, 66, 67, 67, 68, 68],
     [69, 69, 70, 70, 97, 97, 98, 98],
     [99, 99, 100, 100, 101, 101, 102, 102],
     [33, 33, 36, 36, 37, 37, 39, 39],
     [40, 40, 41, 41, 42, 42, 43, 43],
     [45, 45, 46, 46, 47, 47, 48, 57],
     [58, 58, 63, 63, 65, 90, 91, 91],
     [93, 93, 95, 95, 97, 122, 126, 126],
     [33, 33, 36, 36, 37, 37, 39, 39],
     [40, 40, 41, 41, 42, 42, 43, 43],
     [45, 45, 46, 46, 47, 47, 48, 57],
     [58, 58, 61, 61, 63, 63, 65, 90],
     [91, 91, 93, 93, 95, 95, 97, 122],
     [126, 126, 48, 57, 65, 65, 66, 66],
     [67, 67, 68, 68, 69, 69, 70, 70],
     [97, 97, 98, 98, 99, 99, 100, 100],
     [101, 101, 102, 102, 48, 57, 65, 65],
     [66, 66, 67, 67, 68, 68, 69, 69],
     [70, 70, 97, 97, 98, 98, 99, 99],
     [100, 100, 101, 101, 102, 102, 33, 33],
     [36, 36, 37, 37, 38, 38, 39, 39],
     [40, 40, 41, 41, 42, 42, 43, 43],
     [45, 45, 46, 46, 47, 47, 48, 57],
     [58, 58, 63, 63, 65, 90, 91, 91],
     [93, 93, 95, 95, 97, 122, 126, 126],
     [48, 57, 65, 65, 66, 66, 67, 67],
     [68, 68, 69, 69, 70, 70, 97, 97],
     [98, 98, 99, 99, 100, 100, 101, 101],
     [102, 102, 48, 57, 65, 65, 66, 66],
     [67, 67, 68, 68, 69, 69, 70, 70],
     [97, 97, 98, 98, 99, 99, 100, 100],
     [101, 101, 102, 102, 33, 33, 36, 36],
     [37, 37, 38, 38, 39, 39, 40, 40],
     [41, 41, 42, 42, 43, 43, 45, 45],
     [46, 46, 47, 47, 48, 57, 58, 58],
     [65, 90, 91, 91, 93, 93, 95, 95],
     [97, 122, 126, 126, 33, 33, 36, 36],
     [37, 37, 38, 38, 39, 39, 40, 40],
     [41, 41, 42, 42, 43, 43, 45, 45],
     [46, 46, 47, 47, 48, 57, 58, 58],
     [59, 59, 61, 61, 63, 63, 65, 81],
     [82, 82, 83, 90, 91, 91, 93, 93],
     [95, 95, 97, 113, 114, 114, 115, 122],
     [126, 126, 33, 33, 36, 36, 37, 37],
     [38, 38, 39, 39, 40, 40, 41, 41],
     [42, 42, 43, 43, 45, 45, 46, 46],
     [47, 47, 48, 57, 58, 58, 59, 59],
     [61, 61, 63, 63, 65, 90, 91, 91],
     [93, 93, 95, 95, 97, 122, 126, 126],
     [33, 33, 36, 36, 37, 37, 38, 38],
     [39, 39, 40, 40, 41, 41, 42, 42]]"

definition sup_cond_keys_34 :: "int list list" where
  "sup_cond_keys_34 =
    [[43, 43, 45, 45, 46, 46, 47, 47],
     [48, 57, 58, 58, 59, 59, 61, 61],
     [63, 63, 65, 90, 91, 91, 93, 93],
     [95, 95, 96, 96, 97, 122, 126, 126],
     [33, 33, 36, 36, 37, 37, 38, 38],
     [39, 39, 40, 40, 41, 41, 42, 42],
     [43, 43, 45, 45, 46, 46, 47, 47],
     [48, 57, 58, 58, 59, 59, 63, 63],
     [65, 90, 91, 91, 93, 93, 95, 95],
     [96, 96, 97, 122, 126, 126, 33, 33],
     [37, 37, 39, 39, 42, 42, 43, 43],
     [45, 45, 46, 46, 48, 57, 59, 59],
     [63, 63, 65, 65, 66, 66, 67, 67],
     [68, 68, 69, 69, 70, 70, 71, 90],
     [95, 95, 96, 96, 97, 97, 98, 98],
     [99, 99, 100, 100, 101, 101, 102, 102],
     [103, 122, 126, 126, 33, 33, 37, 37],
     [39, 39, 42, 42, 43, 43, 45, 45],
     [46, 46, 48, 57, 59, 59, 63, 63],
     [65, 90, 95, 95, 96, 96, 97, 122],
     [126, 126, 33, 33, 37, 37, 39, 39],
     [42, 42, 43, 43, 45, 45, 46, 46],
     [48, 57, 59, 59, 63, 63, 65, 65],
     [66, 66, 67, 67, 68, 68, 69, 69],
     [70, 70, 71, 90, 95, 95, 96, 96],
     [97, 97, 98, 98, 99, 99, 100, 100],
     [101, 101, 102, 102, 103, 122, 126, 126],
     [33, 33, 36, 36, 37, 37, 38, 38],
     [39, 39, 40, 40, 41, 41, 42, 42],
     [43, 43, 45, 45, 46, 46, 47, 47],
     [48, 57, 58, 58, 59, 59, 61, 61],
     [63, 63, 65, 65, 66, 66, 67, 85],
     [86, 86, 87, 90, 91, 91, 93, 93],
     [95, 95, 97, 97, 98, 98, 99, 117],
     [118, 118, 119, 122, 126, 126, 33, 33],
     [36, 36, 37, 37, 38, 38, 39, 39],
     [40, 40, 41, 41, 42, 42, 43, 43],
     [45, 45, 46, 46, 47, 47, 48, 57],
     [58, 58, 59, 59, 61, 61, 63, 63],
     [65, 90, 91, 91, 93, 93, 95, 95],
     [97, 122, 126, 126, 33, 33, 36, 36],
     [37, 37, 38, 38, 39, 39, 40, 40],
     [41, 41, 42, 42, 43, 43, 45, 45],
     [46, 46, 47, 47, 48, 57, 58, 58],
     [59, 59, 61, 61, 63, 63, 65, 72],
     [73, 73, 74, 90, 91, 91, 93, 93],
     [95, 95, 97, 104, 105, 105, 106, 122],
     [126, 126, 33, 33, 36, 36, 37, 37],
     [38, 38, 39, 39, 40, 40, 41, 41],
     [42, 42, 43, 43, 45, 45, 46, 46],
     [47, 47, 48, 57, 58, 58, 59, 59],
     [61, 61, 63, 63, 65, 67, 68, 68],
     [69, 90, 91, 91, 93, 93, 95, 95],
     [97, 99, 100, 100, 101, 122, 126, 126],
     [33, 33, 36, 36, 37, 37, 38, 38],
     [39, 39, 40, 40, 41, 41, 42, 42],
     [43, 43, 45, 45, 46, 46, 47, 47],
     [48, 57, 58, 58, 59, 59, 61, 61],
     [63, 63, 65, 90, 91, 91, 93, 93],
     [95, 95, 97, 122, 126, 126, 33, 33],
     [36, 36, 37, 37, 38, 38, 39, 39],
     [40, 40, 41, 41, 42, 42, 43, 43],
     [45, 45, 46, 46, 47, 47, 48, 57],
     [58, 58, 59, 59, 61, 61, 63, 63],
     [65, 90, 91, 91, 93, 93, 95, 95],
     [96, 96, 97, 122, 126, 126, 33, 33],
     [36, 36, 37, 37, 38, 38, 39, 39],
     [40, 40, 41, 41, 42, 42, 43, 43],
     [45, 45, 46, 46, 47, 47, 48, 57],
     [58, 58, 59, 59, 63, 63, 65, 90],
     [91, 91, 93, 93, 95, 95, 96, 96],
     [97, 122, 126, 126, 33, 33, 37, 37],
     [39, 39, 42, 42, 43, 43, 45, 45],
     [46, 46, 48, 57, 59, 59, 63, 63],
     [65, 65, 66, 66, 67, 67, 68, 68],
     [69, 69, 70, 70, 71, 90, 95, 95],
     [96, 96, 97, 97, 98, 98, 99, 99],
     [100, 100, 101, 101, 102, 102, 103, 122],
     [126, 126, 33, 33, 37, 37, 39, 39],
     [42, 42, 43, 43, 45, 45, 46, 46],
     [48, 57, 59, 59, 63, 63, 65, 90],
     [95, 95, 96, 96, 97, 122, 126, 126],
     [33, 33, 37, 37, 39, 39, 42, 42],
     [43, 43, 45, 45, 46, 46, 48, 57],
     [59, 59, 63, 63, 65, 65, 66, 66],
     [67, 67, 68, 68, 69, 69, 70, 70],
     [71, 90, 95, 95, 96, 96, 97, 97],
     [98, 98, 99, 99, 100, 100, 101, 101],
     [102, 102, 103, 122, 126, 126, 33, 33],
     [36, 36, 37, 37, 38, 38, 39, 39],
     [40, 40, 41, 41, 42, 42, 43, 43],
     [45, 45, 46, 46, 47, 47, 48, 57],
     [58, 58, 59, 59, 61, 61, 63, 63],
     [65, 81, 82, 82, 83, 90, 91, 91],
     [93, 93, 95, 95, 97, 113, 114, 114],
     [115, 122, 126, 126, 33, 33, 36, 36],
     [37, 37, 38, 38, 39, 39, 40, 40],
     [41, 41, 42, 42, 43, 43, 45, 45],
     [46, 46, 47, 47, 48, 57, 58, 58],
     [59, 59, 61, 61, 63, 63, 65, 65],
     [66, 90, 91, 91, 93, 93, 95, 95],
     [97, 97, 98, 122, 126, 126, 33, 33],
     [36, 36, 37, 37, 38, 38, 39, 39],
     [40, 40, 41, 41, 42, 42, 43, 43],
     [45, 45, 46, 46, 47, 47, 48, 57],
     [58, 58, 59, 59, 61, 61, 63, 63],
     [65, 77, 78, 78, 79, 90, 91, 91],
     [93, 93, 95, 95, 97, 109, 110, 110],
     [111, 122, 126, 126, 33, 33, 36, 36],
     [37, 37, 38, 38, 39, 39, 40, 40],
     [41, 41, 42, 42, 43, 43, 45, 45],
     [46, 46, 47, 47, 48, 57, 58, 58],
     [59, 59, 61, 61, 63, 63, 65, 82],
     [83, 83, 84, 90, 91, 91, 93, 93],
     [95, 95, 97, 114, 115, 115, 116, 122],
     [126, 126, 33, 33, 36, 36, 37, 37],
     [38, 38, 39, 39, 40, 40, 41, 41],
     [42, 42, 43, 43, 45, 45, 46, 46],
     [47, 47, 48, 57, 58, 58, 59, 59],
     [61, 61, 63, 63, 65, 79, 80, 80],
     [81, 90, 91, 91, 93, 93, 95, 95],
     [97, 111, 112, 112, 113, 122, 126, 126],
     [33, 33, 36, 36, 37, 37, 38, 38],
     [39, 39, 40, 40, 41, 41, 42, 42],
     [43, 43, 45, 45, 46, 46, 47, 47],
     [48, 57, 58, 58, 59, 59, 61, 61],
     [63, 63, 65, 78, 79, 79, 80, 90],
     [91, 91, 93, 93, 95, 95, 97, 110],
     [111, 111, 112, 122, 126, 126, 33, 33],
     [36, 36, 37, 37, 38, 38, 39, 39],
     [40, 40, 41, 41, 42, 42, 43, 43],
     [45, 45, 46, 46, 47, 47, 48, 57],
     [58, 58, 59, 59, 61, 61, 63, 63],
     [65, 81, 82, 82, 83, 90, 91, 91],
     [93, 93, 95, 95, 97, 113, 114, 114],
     [115, 122, 126, 126, 33, 33, 36, 36],
     [37, 37, 38, 38, 39, 39, 40, 40],
     [41, 41, 42, 42, 43, 43, 45, 45],
     [46, 46, 47, 47, 48, 57, 58, 58],
     [59, 59, 61, 61, 63, 63, 65, 83],
     [84, 84, 85, 90, 91, 91, 93, 93],
     [95, 95, 97, 115, 116, 116, 117, 122],
     [126, 126, 33, 33, 36, 36, 37, 37],
     [38, 38, 39, 39, 40, 40, 41, 41],
     [42, 42, 43, 43, 45, 45, 46, 46],
     [47, 47, 48, 57, 58, 58, 59, 59],
     [61, 61, 63, 63, 65, 90, 91, 91],
     [93, 93, 95, 95, 97, 122, 126, 126],
     [33, 33, 36, 36, 37, 37, 38, 38],
     [39, 39, 40, 40, 41, 41, 42, 42]]"

definition sup_cond_keys_35 :: "int list list" where
  "sup_cond_keys_35 =
    [[43, 43, 45, 45, 46, 46, 47, 47],
     [48, 57, 58, 58, 59, 59, 61, 61],
     [63, 63, 65, 82, 83, 83, 84, 84],
     [85, 85, 86, 86, 87, 87, 88, 90],
     [91, 91, 93, 93, 95, 95, 96, 96],
     [97, 114, 115, 115, 116, 116, 117, 117],
     [118, 118, 119, 119, 120, 122, 126, 126],
     [33, 33, 36, 36, 37, 37, 38, 38],
     [39, 39, 40, 40, 41, 41, 42, 42],
     [43, 43, 45, 45, 46, 46, 47, 47],
     [48, 57, 58, 58, 59, 59, 63, 63],
     [65, 90, 91, 91, 93, 93, 95, 95],
     [96, 96, 97, 122, 126, 126, 33, 33],
     [37, 37, 39, 39, 42, 42, 43, 43],
     [45, 45, 46, 46, 48, 57, 59, 59],
     [63, 63, 65, 65, 66, 66, 67, 67],
     [68, 68, 69, 69, 70, 70, 71, 90],
     [95, 95, 96, 96, 97, 97, 98, 98],
     [99, 99, 100, 100, 101, 101, 102, 102],
     [103, 122, 126, 126, 33, 33, 37, 37],
     [39, 39, 42, 42, 43, 43, 45, 45],
     [46, 46, 48, 57, 59, 59, 63, 63],
     [65, 90, 95, 95, 96, 96, 97, 122],
     [126, 126, 33, 33, 37, 37, 39, 39],
     [42, 42, 43, 43, 45, 45, 46, 46],
     [48, 57, 59, 59, 63, 63, 65, 65],
     [66, 66, 67, 67, 68, 68, 69, 69],
     [70, 70, 71, 90, 95, 95, 96, 96],
     [97, 97, 98, 98, 99, 99, 100, 100],
     [101, 101, 102, 102, 103, 122, 126, 126],
     [33, 33, 36, 36, 37, 37, 38, 38],
     [39, 39, 40, 40, 41, 41, 42, 42],
     [43, 43, 45, 45, 46, 46, 47, 47],
     [48, 57, 58, 58, 59, 59, 63, 63],
     [65, 66, 67, 67, 68, 90, 91, 91],
     [93, 93, 95, 95, 96, 96, 97, 98],
     [99, 99, 100, 122, 126, 126, 33, 33],
     [36, 36, 37, 37, 38, 38, 39, 39],
     [40, 40, 41, 41, 42, 42, 43, 43],
     [45, 45, 46, 46, 47, 47, 48, 57],
     [58, 58, 59, 59, 63, 63, 65, 83],
     [84, 84, 85, 90, 91, 91, 93, 93],
     [95, 95, 96, 96, 97, 115, 116, 116],
     [117, 122, 126, 126, 33, 33, 36, 36],
     [37, 37, 38, 38, 39, 39, 40, 40],
     [41, 41, 42, 42, 43, 43, 45, 45],
     [46, 46, 47, 47, 48, 57, 58, 58],
     [59, 59, 63, 63, 65, 79, 80, 80],
     [81, 90, 91, 91, 93, 93, 95, 95],
     [96, 96, 97, 111, 112, 112, 113, 122],
     [126, 126, 33, 33, 36, 36, 37, 37],
     [38, 38, 39, 39, 40, 40, 41, 41],
     [42, 42, 43, 43, 45, 45, 46, 46],
     [47, 47, 48, 57, 58, 58, 59, 59],
     [63, 63, 65, 90, 91, 91, 93, 93],
     [95, 95, 96, 96, 97, 122, 126, 126],
     [33, 33, 36, 36, 37, 37, 38, 38],
     [39, 39, 40, 40, 41, 41, 42, 42],
     [43, 43, 45, 45, 46, 46, 47, 47],
     [48, 57, 58, 58, 59, 59, 63, 63],
     [65, 66, 67, 67, 68, 75, 76, 76],
     [77, 90, 91, 91, 93, 93, 95, 95],
     [96, 96, 97, 98, 99, 99, 100, 107],
     [108, 108, 109, 122, 126, 126, 33, 33],
     [36, 36, 37, 37, 38, 38, 39, 39],
     [40, 40, 41, 41, 42, 42, 43, 43],
     [45, 45, 46, 46, 47, 47, 48, 57],
     [58, 58, 59, 59, 63, 63, 65, 79],
     [80, 80, 81, 90, 91, 91, 93, 93],
     [95, 95, 96, 96, 97, 111, 112, 112],
     [113, 122, 126, 126, 33, 33, 36, 36],
     [37, 37, 38, 38, 39, 39, 40, 40],
     [41, 41, 42, 42, 43, 43, 45, 45],
     [46, 46, 47, 47, 48, 57, 58, 58],
     [59, 59, 63, 63, 65, 90, 91, 91],
     [93, 93, 95, 95, 96, 96, 97, 122],
     [126, 126, 33, 33, 36, 36, 37, 37],
     [38, 38, 39, 39, 40, 40, 41, 41],
     [42, 42, 43, 43, 45, 45, 46, 46],
     [47, 47, 48, 57, 58, 58, 59, 59],
     [63, 63, 65, 82, 83, 83, 84, 90],
     [91, 91, 93, 93, 95, 95, 96, 96],
     [97, 114, 115, 115, 116, 122, 126, 126],
     [33, 33, 36, 36, 37, 37, 38, 38],
     [39, 39, 40, 40, 41, 41, 42, 42],
     [43, 43, 45, 45, 46, 46, 47, 47],
     [48, 57, 58, 58, 59, 59, 63, 63],
     [65, 90, 91, 91, 93, 93, 95, 95],
     [96, 96, 97, 122, 126, 126, 33, 33],
     [36, 36, 37, 37, 38, 38, 39, 39],
     [40, 40, 41, 41, 42, 42, 43, 43],
     [45, 45, 46, 46, 47, 47, 48, 57],
     [58, 58, 59, 59, 63, 63, 65, 67],
     [68, 68, 69, 90, 91, 91, 93, 93],
     [95, 95, 96, 96, 97, 99, 100, 100],
     [101, 122, 126, 126, 33, 33, 36, 36],
     [37, 37, 38, 38, 39, 39, 40, 40],
     [41, 41, 42, 42, 43, 43, 45, 45],
     [46, 46, 47, 47, 48, 57, 58, 58],
     [59, 59, 63, 63, 65, 79, 80, 80],
     [81, 90, 91, 91, 93, 93, 95, 95],
     [96, 96, 97, 111, 112, 112, 113, 122],
     [126, 126, 33, 33, 36, 36, 37, 37],
     [38, 38, 39, 39, 40, 40, 41, 41],
     [42, 42, 43, 43, 45, 45, 46, 46],
     [47, 47, 48, 57, 58, 58, 59, 59],
     [63, 63, 65, 90, 91, 91, 93, 93],
     [95, 95, 96, 96, 97, 122, 126, 126],
     [33, 33, 36, 36, 37, 37, 38, 38],
     [39, 39, 40, 40, 41, 41, 42, 42],
     [43, 43, 45, 45, 46, 46, 47, 47],
     [48, 57, 58, 58, 59, 59, 63, 63],
     [65, 82, 83, 83, 84, 90, 91, 91],
     [93, 93, 95, 95, 96, 96, 97, 114],
     [115, 115, 116, 122, 126, 126, 33, 33],
     [36, 36, 37, 37, 38, 38, 39, 39],
     [40, 40, 41, 41, 42, 42, 43, 43],
     [45, 45, 46, 46, 47, 47, 48, 57],
     [58, 58, 59, 59, 63, 63, 65, 82],
     [83, 83, 84, 90, 91, 91, 93, 93],
     [95, 95, 96, 96, 97, 114, 115, 115],
     [116, 122, 126, 126, 33, 33, 36, 36],
     [37, 37, 38, 38, 39, 39, 40, 40],
     [41, 41, 42, 42, 43, 43, 45, 45],
     [46, 46, 47, 47, 48, 57, 58, 58],
     [59, 59, 63, 63, 65, 90, 91, 91],
     [93, 93, 95, 95, 96, 96, 97, 122],
     [126, 126, 48, 57, 59, 59, 63, 63],
     [48, 57, 59, 59, 63, 63, 48, 57],
     [59, 59, 63, 63, 48, 57, 59, 59],
     [63, 63, 48, 52, 53, 53, 54, 57],
     [59, 59, 63, 63, 48, 52, 53, 53],
     [54, 57, 59, 59, 63, 63, 48, 50],
     [51, 51, 52, 57, 59, 59, 63, 63],
     [48, 53, 59, 59, 63, 63, 48, 48],
     [49, 49, 50, 50, 51, 57, 65, 90],
     [97, 122, 45, 45, 46, 46, 48, 57],
     [65, 90, 95, 95, 97, 122, 48, 48],
     [49, 49, 50, 50, 51, 57, 65, 90],
     [97, 122, 45, 45, 46, 46, 48, 57],
     [65, 90, 95, 95, 97, 122, 48, 48],
     [49, 49, 50, 50, 51, 57, 65, 90],
     [97, 122, 45, 45, 46, 46, 48, 57],
     [58, 58, 59, 59, 63, 63, 65, 90],
     [95, 95, 97, 122, 45, 45, 46, 46],
     [48, 57, 58, 58, 59, 59, 63, 63],
     [65, 90, 95, 95, 97, 122, 45, 45],
     [46, 46, 48, 57, 58, 58, 59, 59],
     [63, 63, 65, 90, 95, 95, 97, 122],
     [45, 45, 46, 46, 48, 52, 53, 53]]"

definition sup_cond_keys_36 :: "int list list" where
  "sup_cond_keys_36 =
    [[54, 57, 58, 58, 59, 59, 63, 63],
     [65, 90, 95, 95, 97, 122, 45, 45],
     [46, 46, 48, 53, 54, 57, 58, 58],
     [59, 59, 63, 63, 65, 90, 95, 95],
     [97, 122, 45, 45, 46, 46, 48, 57],
     [65, 90, 95, 95, 97, 122, 45, 45],
     [46, 46, 48, 57, 65, 90, 95, 95],
     [97, 122, 45, 45, 46, 46, 48, 52],
     [53, 53, 54, 57, 65, 90, 95, 95],
     [97, 122, 45, 45, 46, 46, 48, 53],
     [54, 57, 65, 90, 95, 95, 97, 122],
     [45, 45, 46, 46, 48, 57, 65, 90],
     [95, 95, 97, 122, 45, 45, 46, 46],
     [48, 57, 65, 90, 95, 95, 97, 122],
     [45, 45, 46, 46, 48, 52, 53, 53],
     [54, 57, 65, 90, 95, 95, 97, 122],
     [45, 45, 46, 46, 48, 53, 54, 57],
     [65, 90, 95, 95, 97, 122, 45, 45],
     [46, 46, 48, 57, 65, 90, 95, 95],
     [97, 122, 45, 45, 46, 46, 48, 57],
     [65, 90, 95, 95, 97, 122, 45, 45],
     [46, 46, 48, 52, 53, 53, 54, 57],
     [65, 90, 95, 95, 97, 122, 45, 45],
     [46, 46, 48, 53, 54, 57, 65, 90],
     [95, 95, 97, 122, 48, 57, 58, 58],
     [65, 65, 66, 66, 67, 67, 68, 68],
     [69, 69, 70, 70, 97, 97, 98, 98],
     [99, 99, 100, 100, 101, 101, 102, 102],
     [48, 57, 58, 58, 65, 65, 66, 66],
     [67, 67, 68, 68, 69, 69, 70, 70],
     [97, 97, 98, 98, 99, 99, 100, 100],
     [101, 101, 102, 102, 48, 57, 58, 58],
     [65, 65, 66, 66, 67, 67, 68, 68],
     [69, 69, 70, 70, 97, 97, 98, 98],
     [99, 99, 100, 100, 101, 101, 102, 102],
     [48, 57, 58, 58, 65, 65, 66, 66],
     [67, 67, 68, 68, 69, 69, 70, 70],
     [97, 97, 98, 98, 99, 99, 100, 100],
     [101, 101, 102, 102, 58, 58, 48, 57],
     [58, 58, 65, 65, 66, 66, 67, 67],
     [68, 68, 69, 69, 70, 70, 97, 97],
     [98, 98, 99, 99, 100, 100, 101, 101],
     [102, 102, 48, 57, 58, 58, 65, 65],
     [66, 66, 67, 67, 68, 68, 69, 69],
     [70, 70, 97, 97, 98, 98, 99, 99],
     [100, 100, 101, 101, 102, 102, 48, 57],
     [58, 58, 65, 65, 66, 66, 67, 67],
     [68, 68, 69, 69, 70, 70, 97, 97],
     [98, 98, 99, 99, 100, 100, 101, 101],
     [102, 102, 48, 57, 58, 58, 65, 65],
     [66, 66, 67, 67, 68, 68, 69, 69],
     [70, 70, 97, 97, 98, 98, 99, 99],
     [100, 100, 101, 101, 102, 102, 58, 58],
     [48, 57, 58, 58, 65, 65, 66, 66],
     [67, 67, 68, 68, 69, 69, 70, 70],
     [97, 97, 98, 98, 99, 99, 100, 100],
     [101, 101, 102, 102, 48, 57, 58, 58],
     [65, 65, 66, 66, 67, 67, 68, 68],
     [69, 69, 70, 70, 97, 97, 98, 98],
     [99, 99, 100, 100, 101, 101, 102, 102],
     [48, 57, 58, 58, 65, 65, 66, 66],
     [67, 67, 68, 68, 69, 69, 70, 70],
     [97, 97, 98, 98, 99, 99, 100, 100],
     [101, 101, 102, 102, 48, 57, 58, 58],
     [65, 65, 66, 66, 67, 67, 68, 68],
     [69, 69, 70, 70, 97, 97, 98, 98],
     [99, 99, 100, 100, 101, 101, 102, 102],
     [58, 58, 48, 57, 58, 58, 65, 65],
     [66, 66, 67, 67, 68, 68, 69, 69],
     [70, 70, 97, 97, 98, 98, 99, 99],
     [100, 100, 101, 101, 102, 102, 48, 57],
     [58, 58, 65, 65, 66, 66, 67, 67],
     [68, 68, 69, 69, 70, 70, 97, 97],
     [98, 98, 99, 99, 100, 100, 101, 101],
     [102, 102, 48, 57, 58, 58, 65, 65],
     [66, 66, 67, 67, 68, 68, 69, 69],
     [70, 70, 97, 97, 98, 98, 99, 99],
     [100, 100, 101, 101, 102, 102, 48, 57],
     [58, 58, 65, 65, 66, 66, 67, 67],
     [68, 68, 69, 69, 70, 70, 97, 97],
     [98, 98, 99, 99, 100, 100, 101, 101],
     [102, 102, 58, 58, 48, 57, 58, 58],
     [65, 65, 66, 66, 67, 67, 68, 68],
     [69, 69, 70, 70, 97, 97, 98, 98],
     [99, 99, 100, 100, 101, 101, 102, 102],
     [48, 57, 58, 58, 65, 65, 66, 66],
     [67, 67, 68, 68, 69, 69, 70, 70],
     [97, 97, 98, 98, 99, 99, 100, 100],
     [101, 101, 102, 102, 48, 57, 58, 58],
     [65, 65, 66, 66, 67, 67, 68, 68],
     [69, 69, 70, 70, 97, 97, 98, 98],
     [99, 99, 100, 100, 101, 101, 102, 102],
     [48, 57, 58, 58, 65, 65, 66, 66],
     [67, 67, 68, 68, 69, 69, 70, 70],
     [97, 97, 98, 98, 99, 99, 100, 100],
     [101, 101, 102, 102, 58, 58, 48, 57],
     [58, 58, 65, 65, 66, 66, 67, 67],
     [68, 68, 69, 69, 70, 70, 97, 97],
     [98, 98, 99, 99, 100, 100, 101, 101],
     [102, 102, 48, 57, 58, 58, 65, 65],
     [66, 66, 67, 67, 68, 68, 69, 69],
     [70, 70, 97, 97, 98, 98, 99, 99],
     [100, 100, 101, 101, 102, 102, 48, 57],
     [58, 58, 65, 65, 66, 66, 67, 67],
     [68, 68, 69, 69, 70, 70, 97, 97],
     [98, 98, 99, 99, 100, 100, 101, 101],
     [102, 102, 48, 57, 58, 58, 65, 65],
     [66, 66, 67, 67, 68, 68, 69, 69],
     [70, 70, 97, 97, 98, 98, 99, 99],
     [100, 100, 101, 101, 102, 102, 58, 58],
     [48, 48, 49, 49, 50, 50, 51, 57],
     [58, 58, 65, 65, 66, 66, 67, 67],
     [68, 68, 69, 69, 70, 70, 97, 97],
     [98, 98, 99, 99, 100, 100, 101, 101],
     [102, 102, 46, 46, 48, 57, 58, 58],
     [65, 65, 66, 66, 67, 67, 68, 68],
     [69, 69, 70, 70, 97, 97, 98, 98],
     [99, 99, 100, 100, 101, 101, 102, 102],
     [48, 48, 49, 49, 50, 50, 51, 57],
     [46, 46, 48, 48, 49, 49, 50, 50],
     [51, 57, 46, 46, 48, 48, 49, 49],
     [50, 50, 51, 57, 93, 93, 58, 58],
     [59, 59, 63, 63, 48, 57, 93, 93],
     [48, 57, 93, 93, 48, 52, 53, 53],
     [54, 57, 93, 93, 48, 53, 93, 93],
     [46, 46, 48, 57, 46, 46, 48, 57],
     [46, 46, 48, 52, 53, 53, 54, 57],
     [46, 46, 48, 53, 46, 46, 48, 57],
     [46, 46, 48, 57, 46, 46, 48, 52],
     [53, 53, 54, 57, 46, 46, 48, 53],
     [48, 57, 58, 58, 65, 65, 66, 66],
     [67, 67, 68, 68, 69, 69, 70, 70],
     [97, 97, 98, 98, 99, 99, 100, 100],
     [101, 101, 102, 102, 48, 57, 58, 58],
     [65, 65, 66, 66, 67, 67, 68, 68],
     [69, 69, 70, 70, 97, 97, 98, 98],
     [99, 99, 100, 100, 101, 101, 102, 102],
     [58, 58, 48, 57, 58, 58, 65, 65],
     [66, 66, 67, 67, 68, 68, 69, 69],
     [70, 70, 97, 97, 98, 98, 99, 99],
     [100, 100, 101, 101, 102, 102, 48, 57],
     [65, 65, 66, 66, 67, 67, 68, 68],
     [69, 69, 70, 70, 93, 93, 97, 97],
     [98, 98, 99, 99, 100, 100, 101, 101],
     [102, 102, 48, 57, 65, 65, 66, 66],
     [67, 67, 68, 68, 69, 69, 70, 70],
     [93, 93, 97, 97, 98, 98, 99, 99],
     [100, 100, 101, 101, 102, 102, 48, 57],
     [65, 65, 66, 66, 67, 67, 68, 68],
     [69, 69, 70, 70, 93, 93, 97, 97]]"

definition sup_cond_keys_37 :: "int list list" where
  "sup_cond_keys_37 =
    [[98, 98, 99, 99, 100, 100, 101, 101],
     [102, 102, 46, 46, 48, 57, 58, 58],
     [65, 65, 66, 66, 67, 67, 68, 68],
     [69, 69, 70, 70, 97, 97, 98, 98],
     [99, 99, 100, 100, 101, 101, 102, 102],
     [46, 46, 48, 57, 58, 58, 65, 65],
     [66, 66, 67, 67, 68, 68, 69, 69],
     [70, 70, 97, 97, 98, 98, 99, 99],
     [100, 100, 101, 101, 102, 102, 46, 46],
     [48, 57, 58, 58, 65, 65, 66, 66],
     [67, 67, 68, 68, 69, 69, 70, 70],
     [97, 97, 98, 98, 99, 99, 100, 100],
     [101, 101, 102, 102, 46, 46, 48, 52],
     [53, 53, 54, 57, 58, 58, 65, 65],
     [66, 66, 67, 67, 68, 68, 69, 69],
     [70, 70, 97, 97, 98, 98, 99, 99],
     [100, 100, 101, 101, 102, 102, 46, 46],
     [48, 53, 54, 57, 58, 58, 65, 65],
     [66, 66, 67, 67, 68, 68, 69, 69],
     [70, 70, 97, 97, 98, 98, 99, 99],
     [100, 100, 101, 101, 102, 102, 46, 46],
     [48, 57, 58, 58, 65, 65, 66, 66],
     [67, 67, 68, 68, 69, 69, 70, 70],
     [97, 97, 98, 98, 99, 99, 100, 100],
     [101, 101, 102, 102, 46, 46, 48, 57],
     [58, 58, 65, 65, 66, 66, 67, 67],
     [68, 68, 69, 69, 70, 70, 97, 97],
     [98, 98, 99, 99, 100, 100, 101, 101],
     [102, 102, 48, 57, 65, 65, 66, 66],
     [67, 67, 68, 68, 69, 69, 70, 70],
     [93, 93, 97, 97, 98, 98, 99, 99],
     [100, 100, 101, 101, 102, 102, 48, 57],
     [58, 58, 65, 65, 66, 66, 67, 67],
     [68, 68, 69, 69, 70, 70, 97, 97],
     [98, 98, 99, 99, 100, 100, 101, 101],
     [102, 102, 48, 48, 49, 49, 50, 50],
     [51, 57, 65, 65, 66, 66, 67, 67],
     [68, 68, 69, 69, 70, 70, 93, 93],
     [97, 97, 98, 98, 99, 99, 100, 100],
     [101, 101, 102, 102, 46, 46, 48, 57],
     [58, 58, 65, 65, 66, 66, 67, 67],
     [68, 68, 69, 69, 70, 70, 93, 93],
     [97, 97, 98, 98, 99, 99, 100, 100],
     [101, 101, 102, 102, 48, 57, 58, 58],
     [65, 65, 66, 66, 67, 67, 68, 68],
     [69, 69, 70, 70, 93, 93, 97, 97],
     [98, 98, 99, 99, 100, 100, 101, 101],
     [102, 102, 48, 57, 58, 58, 65, 65],
     [66, 66, 67, 67, 68, 68, 69, 69],
     [70, 70, 93, 93, 97, 97, 98, 98],
     [99, 99, 100, 100, 101, 101, 102, 102],
     [58, 58, 93, 93, 48, 57, 65, 65],
     [66, 66, 67, 67, 68, 68, 69, 69],
     [70, 70, 97, 97, 98, 98, 99, 99],
     [100, 100, 101, 101, 102, 102, 46, 46],
     [48, 57, 58, 58, 65, 65, 66, 66],
     [67, 67, 68, 68, 69, 69, 70, 70],
     [93, 93, 97, 97, 98, 98, 99, 99],
     [100, 100, 101, 101, 102, 102, 46, 46],
     [48, 57, 58, 58, 65, 65, 66, 66],
     [67, 67, 68, 68, 69, 69, 70, 70],
     [93, 93, 97, 97, 98, 98, 99, 99],
     [100, 100, 101, 101, 102, 102, 46, 46],
     [48, 57, 58, 58, 65, 65, 66, 66],
     [67, 67, 68, 68, 69, 69, 70, 70],
     [93, 93, 97, 97, 98, 98, 99, 99],
     [100, 100, 101, 101, 102, 102, 46, 46],
     [48, 52, 53, 53, 54, 57, 58, 58],
     [65, 65, 66, 66, 67, 67, 68, 68],
     [69, 69, 70, 70, 93, 93, 97, 97],
     [98, 98, 99, 99, 100, 100, 101, 101],
     [102, 102, 46, 46, 48, 53, 54, 57],
     [58, 58, 65, 65, 66, 66, 67, 67],
     [68, 68, 69, 69, 70, 70, 93, 93],
     [97, 97, 98, 98, 99, 99, 100, 100],
     [101, 101, 102, 102, 46, 46, 48, 57],
     [58, 58, 65, 65, 66, 66, 67, 67],
     [68, 68, 69, 69, 70, 70, 93, 93],
     [97, 97, 98, 98, 99, 99, 100, 100],
     [101, 101, 102, 102, 46, 46, 48, 57],
     [58, 58, 65, 65, 66, 66, 67, 67],
     [68, 68, 69, 69, 70, 70, 93, 93],
     [97, 97, 98, 98, 99, 99, 100, 100],
     [101, 101, 102, 102, 48, 57, 58, 58],
     [65, 65, 66, 66, 67, 67, 68, 68],
     [69, 69, 70, 70, 93, 93, 97, 97],
     [98, 98, 99, 99, 100, 100, 101, 101],
     [102, 102, 48, 48, 49, 49, 50, 50],
     [51, 57, 65, 65, 66, 66, 67, 67],
     [68, 68, 69, 69, 70, 70, 93, 93],
     [97, 97, 98, 98, 99, 99, 100, 100],
     [101, 101, 102, 102, 46, 46, 48, 57],
     [58, 58, 65, 65, 66, 66, 67, 67],
     [68, 68, 69, 69, 70, 70, 93, 93],
     [97, 97, 98, 98, 99, 99, 100, 100],
     [101, 101, 102, 102, 48, 57, 58, 58],
     [65, 65, 66, 66, 67, 67, 68, 68],
     [69, 69, 70, 70, 93, 93, 97, 97],
     [98, 98, 99, 99, 100, 100, 101, 101],
     [102, 102, 48, 57, 58, 58, 65, 65],
     [66, 66, 67, 67, 68, 68, 69, 69],
     [70, 70, 93, 93, 97, 97, 98, 98],
     [99, 99, 100, 100, 101, 101, 102, 102],
     [58, 58, 93, 93, 48, 48, 49, 49],
     [50, 50, 51, 57, 65, 65, 66, 66],
     [67, 67, 68, 68, 69, 69, 70, 70],
     [97, 97, 98, 98, 99, 99, 100, 100],
     [101, 101, 102, 102, 46, 46, 48, 57],
     [58, 58, 65, 65, 66, 66, 67, 67],
     [68, 68, 69, 69, 70, 70, 93, 93],
     [97, 97, 98, 98, 99, 99, 100, 100],
     [101, 101, 102, 102, 46, 46, 48, 57],
     [58, 58, 65, 65, 66, 66, 67, 67],
     [68, 68, 69, 69, 70, 70, 93, 93],
     [97, 97, 98, 98, 99, 99, 100, 100],
     [101, 101, 102, 102, 46, 46, 48, 57],
     [58, 58, 65, 65, 66, 66, 67, 67],
     [68, 68, 69, 69, 70, 70, 93, 93],
     [97, 97, 98, 98, 99, 99, 100, 100],
     [101, 101, 102, 102, 46, 46, 48, 52],
     [53, 53, 54, 57, 58, 58, 65, 65],
     [66, 66, 67, 67, 68, 68, 69, 69],
     [70, 70, 93, 93, 97, 97, 98, 98],
     [99, 99, 100, 100, 101, 101, 102, 102],
     [46, 46, 48, 53, 54, 57, 58, 58],
     [65, 65, 66, 66, 67, 67, 68, 68],
     [69, 69, 70, 70, 93, 93, 97, 97],
     [98, 98, 99, 99, 100, 100, 101, 101],
     [102, 102, 46, 46, 48, 57, 58, 58],
     [65, 65, 66, 66, 67, 67, 68, 68],
     [69, 69, 70, 70, 93, 93, 97, 97],
     [98, 98, 99, 99, 100, 100, 101, 101],
     [102, 102, 46, 46, 48, 57, 58, 58],
     [65, 65, 66, 66, 67, 67, 68, 68],
     [69, 69, 70, 70, 93, 93, 97, 97],
     [98, 98, 99, 99, 100, 100, 101, 101],
     [102, 102, 48, 57, 58, 58, 65, 65],
     [66, 66, 67, 67, 68, 68, 69, 69],
     [70, 70, 93, 93, 97, 97, 98, 98],
     [99, 99, 100, 100, 101, 101, 102, 102],
     [48, 48, 49, 49, 50, 50, 51, 57],
     [65, 65, 66, 66, 67, 67, 68, 68],
     [69, 69, 70, 70, 93, 93, 97, 97],
     [98, 98, 99, 99, 100, 100, 101, 101],
     [102, 102, 46, 46, 48, 57, 58, 58],
     [65, 65, 66, 66, 67, 67, 68, 68],
     [69, 69, 70, 70, 93, 93, 97, 97],
     [98, 98, 99, 99, 100, 100, 101, 101],
     [102, 102, 48, 57, 58, 58, 65, 65],
     [66, 66, 67, 67, 68, 68, 69, 69]]"

definition sup_cond_keys_38 :: "int list list" where
  "sup_cond_keys_38 =
    [[70, 70, 93, 93, 97, 97, 98, 98],
     [99, 99, 100, 100, 101, 101, 102, 102],
     [48, 57, 58, 58, 65, 65, 66, 66],
     [67, 67, 68, 68, 69, 69, 70, 70],
     [93, 93, 97, 97, 98, 98, 99, 99],
     [100, 100, 101, 101, 102, 102, 58, 58],
     [93, 93, 48, 48, 49, 49, 50, 50],
     [51, 57, 65, 65, 66, 66, 67, 67],
     [68, 68, 69, 69, 70, 70, 97, 97],
     [98, 98, 99, 99, 100, 100, 101, 101],
     [102, 102, 46, 46, 48, 57, 58, 58],
     [65, 65, 66, 66, 67, 67, 68, 68],
     [69, 69, 70, 70, 93, 93, 97, 97],
     [98, 98, 99, 99, 100, 100, 101, 101],
     [102, 102, 46, 46, 48, 57, 58, 58],
     [65, 65, 66, 66, 67, 67, 68, 68],
     [69, 69, 70, 70, 93, 93, 97, 97],
     [98, 98, 99, 99, 100, 100, 101, 101],
     [102, 102, 46, 46, 48, 57, 58, 58],
     [65, 65, 66, 66, 67, 67, 68, 68],
     [69, 69, 70, 70, 93, 93, 97, 97],
     [98, 98, 99, 99, 100, 100, 101, 101],
     [102, 102, 46, 46, 48, 52, 53, 53],
     [54, 57, 58, 58, 65, 65, 66, 66],
     [67, 67, 68, 68, 69, 69, 70, 70],
     [93, 93, 97, 97, 98, 98, 99, 99],
     [100, 100, 101, 101, 102, 102, 46, 46],
     [48, 53, 54, 57, 58, 58, 65, 65],
     [66, 66, 67, 67, 68, 68, 69, 69],
     [70, 70, 93, 93, 97, 97, 98, 98],
     [99, 99, 100, 100, 101, 101, 102, 102],
     [46, 46, 48, 57, 58, 58, 65, 65],
     [66, 66, 67, 67, 68, 68, 69, 69],
     [70, 70, 93, 93, 97, 97, 98, 98],
     [99, 99, 100, 100, 101, 101, 102, 102],
     [46, 46, 48, 57, 58, 58, 65, 65],
     [66, 66, 67, 67, 68, 68, 69, 69],
     [70, 70, 93, 93, 97, 97, 98, 98],
     [99, 99, 100, 100, 101, 101, 102, 102],
     [48, 57, 58, 58, 65, 65, 66, 66],
     [67, 67, 68, 68, 69, 69, 70, 70],
     [93, 93, 97, 97, 98, 98, 99, 99],
     [100, 100, 101, 101, 102, 102, 48, 48],
     [49, 49, 50, 50, 51, 57, 65, 65],
     [66, 66, 67, 67, 68, 68, 69, 69],
     [70, 70, 93, 93, 97, 97, 98, 98],
     [99, 99, 100, 100, 101, 101, 102, 102],
     [46, 46, 48, 57, 58, 58, 65, 65],
     [66, 66, 67, 67, 68, 68, 69, 69],
     [70, 70, 93, 93, 97, 97, 98, 98],
     [99, 99, 100, 100, 101, 101, 102, 102],
     [48, 57, 58, 58, 65, 65, 66, 66],
     [67, 67, 68, 68, 69, 69, 70, 70],
     [93, 93, 97, 97, 98, 98, 99, 99],
     [100, 100, 101, 101, 102, 102, 48, 57],
     [58, 58, 65, 65, 66, 66, 67, 67],
     [68, 68, 69, 69, 70, 70, 93, 93],
     [97, 97, 98, 98, 99, 99, 100, 100],
     [101, 101, 102, 102, 58, 58, 93, 93],
     [48, 48, 49, 49, 50, 50, 51, 57],
     [65, 65, 66, 66, 67, 67, 68, 68],
     [69, 69, 70, 70, 97, 97, 98, 98],
     [99, 99, 100, 100, 101, 101, 102, 102],
     [46, 46, 48, 57, 58, 58, 65, 65],
     [66, 66, 67, 67, 68, 68, 69, 69],
     [70, 70, 93, 93, 97, 97, 98, 98],
     [99, 99, 100, 100, 101, 101, 102, 102],
     [46, 46, 48, 57, 58, 58, 65, 65],
     [66, 66, 67, 67, 68, 68, 69, 69],
     [70, 70, 93, 93, 97, 97, 98, 98],
     [99, 99, 100, 100, 101, 101, 102, 102],
     [46, 46, 48, 57, 58, 58, 65, 65],
     [66, 66, 67, 67, 68, 68, 69, 69],
     [70, 70, 93, 93, 97, 97, 98, 98],
     [99, 99, 100, 100, 101, 101, 102, 102],
     [46, 46, 48, 52, 53, 53, 54, 57],
     [58, 58, 65, 65, 66, 66, 67, 67],
     [68, 68, 69, 69, 70, 70, 93, 93],
     [97, 97, 98, 98, 99, 99, 100, 100],
     [101, 101, 102, 102, 46, 46, 48, 53],
     [54, 57, 58, 58, 65, 65, 66, 66],
     [67, 67, 68, 68, 69, 69, 70, 70],
     [93, 93, 97, 97, 98, 98, 99, 99],
     [100, 100, 101, 101, 102, 102, 46, 46],
     [48, 57, 58, 58, 65, 65, 66, 66],
     [67, 67, 68, 68, 69, 69, 70, 70],
     [93, 93, 97, 97, 98, 98, 99, 99],
     [100, 100, 101, 101, 102, 102, 46, 46],
     [48, 57, 58, 58, 65, 65, 66, 66],
     [67, 67, 68, 68, 69, 69, 70, 70],
     [93, 93, 97, 97, 98, 98, 99, 99],
     [100, 100, 101, 101, 102, 102, 48, 57],
     [58, 58, 65, 65, 66, 66, 67, 67],
     [68, 68, 69, 69, 70, 70, 93, 93],
     [97, 97, 98, 98, 99, 99, 100, 100],
     [101, 101, 102, 102, 48, 48, 49, 49],
     [50, 50, 51, 57, 65, 65, 66, 66],
     [67, 67, 68, 68, 69, 69, 70, 70],
     [93, 93, 97, 97, 98, 98, 99, 99],
     [100, 100, 101, 101, 102, 102, 46, 46],
     [48, 57, 58, 58, 65, 65, 66, 66],
     [67, 67, 68, 68, 69, 69, 70, 70],
     [93, 93, 97, 97, 98, 98, 99, 99],
     [100, 100, 101, 101, 102, 102, 48, 57],
     [58, 58, 65, 65, 66, 66, 67, 67],
     [68, 68, 69, 69, 70, 70, 93, 93],
     [97, 97, 98, 98, 99, 99, 100, 100],
     [101, 101, 102, 102, 48, 57, 58, 58],
     [65, 65, 66, 66, 67, 67, 68, 68],
     [69, 69, 70, 70, 93, 93, 97, 97],
     [98, 98, 99, 99, 100, 100, 101, 101],
     [102, 102, 58, 58, 93, 93, 48, 48],
     [49, 49, 50, 50, 51, 57, 65, 65],
     [66, 66, 67, 67, 68, 68, 69, 69],
     [70, 70, 97, 97, 98, 98, 99, 99],
     [100, 100, 101, 101, 102, 102, 46, 46],
     [48, 57, 58, 58, 65, 65, 66, 66],
     [67, 67, 68, 68, 69, 69, 70, 70],
     [93, 93, 97, 97, 98, 98, 99, 99],
     [100, 100, 101, 101, 102, 102, 46, 46],
     [48, 57, 58, 58, 65, 65, 66, 66],
     [67, 67, 68, 68, 69, 69, 70, 70],
     [93, 93, 97, 97, 98, 98, 99, 99],
     [100, 100, 101, 101, 102, 102, 46, 46],
     [48, 57, 58, 58, 65, 65, 66, 66],
     [67, 67, 68, 68, 69, 69, 70, 70],
     [93, 93, 97, 97, 98, 98, 99, 99],
     [100, 100, 101, 101, 102, 102, 46, 46],
     [48, 52, 53, 53, 54, 57, 58, 58],
     [65, 65, 66, 66, 67, 67, 68, 68],
     [69, 69, 70, 70, 93, 93, 97, 97],
     [98, 98, 99, 99, 100, 100, 101, 101],
     [102, 102, 46, 46, 48, 53, 54, 57],
     [58, 58, 65, 65, 66, 66, 67, 67],
     [68, 68, 69, 69, 70, 70, 93, 93],
     [97, 97, 98, 98, 99, 99, 100, 100],
     [101, 101, 102, 102, 46, 46, 48, 57],
     [58, 58, 65, 65, 66, 66, 67, 67],
     [68, 68, 69, 69, 70, 70, 93, 93],
     [97, 97, 98, 98, 99, 99, 100, 100],
     [101, 101, 102, 102, 46, 46, 48, 57],
     [58, 58, 65, 65, 66, 66, 67, 67],
     [68, 68, 69, 69, 70, 70, 93, 93],
     [97, 97, 98, 98, 99, 99, 100, 100],
     [101, 101, 102, 102, 48, 57, 58, 58],
     [65, 65, 66, 66, 67, 67, 68, 68],
     [69, 69, 70, 70, 93, 93, 97, 97],
     [98, 98, 99, 99, 100, 100, 101, 101],
     [102, 102, 58, 58, 48, 48, 49, 49],
     [50, 50, 51, 57, 65, 65, 66, 66]]"

definition sup_cond_keys_39 :: "int list list" where
  "sup_cond_keys_39 =
    [[67, 67, 68, 68, 69, 69, 70, 70],
     [93, 93, 97, 97, 98, 98, 99, 99],
     [100, 100, 101, 101, 102, 102, 46, 46],
     [48, 57, 58, 58, 65, 65, 66, 66],
     [67, 67, 68, 68, 69, 69, 70, 70],
     [93, 93, 97, 97, 98, 98, 99, 99],
     [100, 100, 101, 101, 102, 102, 48, 57],
     [58, 58, 65, 65, 66, 66, 67, 67],
     [68, 68, 69, 69, 70, 70, 93, 93],
     [97, 97, 98, 98, 99, 99, 100, 100],
     [101, 101, 102, 102, 48, 57, 58, 58],
     [65, 65, 66, 66, 67, 67, 68, 68],
     [69, 69, 70, 70, 93, 93, 97, 97],
     [98, 98, 99, 99, 100, 100, 101, 101],
     [102, 102, 58, 58, 93, 93, 48, 48],
     [49, 49, 50, 50, 51, 57, 65, 65],
     [66, 66, 67, 67, 68, 68, 69, 69],
     [70, 70, 97, 97, 98, 98, 99, 99],
     [100, 100, 101, 101, 102, 102, 46, 46],
     [48, 57, 58, 58, 65, 65, 66, 66],
     [67, 67, 68, 68, 69, 69, 70, 70],
     [93, 93, 97, 97, 98, 98, 99, 99],
     [100, 100, 101, 101, 102, 102, 46, 46],
     [48, 57, 58, 58, 65, 65, 66, 66],
     [67, 67, 68, 68, 69, 69, 70, 70],
     [93, 93, 97, 97, 98, 98, 99, 99],
     [100, 100, 101, 101, 102, 102, 46, 46],
     [48, 57, 58, 58, 65, 65, 66, 66],
     [67, 67, 68, 68, 69, 69, 70, 70],
     [93, 93, 97, 97, 98, 98, 99, 99],
     [100, 100, 101, 101, 102, 102, 46, 46],
     [48, 52, 53, 53, 54, 57, 58, 58],
     [65, 65, 66, 66, 67, 67, 68, 68],
     [69, 69, 70, 70, 93, 93, 97, 97],
     [98, 98, 99, 99, 100, 100, 101, 101],
     [102, 102, 46, 46, 48, 53, 54, 57],
     [58, 58, 65, 65, 66, 66, 67, 67],
     [68, 68, 69, 69, 70, 70, 93, 93],
     [97, 97, 98, 98, 99, 99, 100, 100],
     [101, 101, 102, 102, 46, 46, 48, 57],
     [58, 58, 65, 65, 66, 66, 67, 67],
     [68, 68, 69, 69, 70, 70, 93, 93],
     [97, 97, 98, 98, 99, 99, 100, 100],
     [101, 101, 102, 102, 46, 46, 48, 57],
     [58, 58, 65, 65, 66, 66, 67, 67],
     [68, 68, 69, 69, 70, 70, 93, 93],
     [97, 97, 98, 98, 99, 99, 100, 100],
     [101, 101, 102, 102, 48, 57, 58, 58],
     [65, 65, 66, 66, 67, 67, 68, 68],
     [69, 69, 70, 70, 93, 93, 97, 97],
     [98, 98, 99, 99, 100, 100, 101, 101],
     [102, 102, 33, 33, 35, 35, 36, 36],
     [37, 37, 38, 38, 39, 39, 40, 40],
     [41, 41, 42, 42, 43, 43, 44, 44],
     [45, 45, 46, 46, 47, 47, 48, 57],
     [58, 58, 59, 59, 61, 61, 63, 63],
     [64, 64, 65, 90, 95, 95, 97, 122],
     [126, 126, 33, 33, 35, 35, 36, 36],
     [37, 37, 38, 38, 39, 39, 40, 40],
     [41, 41, 42, 42, 43, 43, 44, 44],
     [45, 45, 46, 46, 47, 47, 48, 57],
     [58, 58, 59, 59, 61, 61, 63, 63],
     [64, 64, 65, 90, 95, 95, 97, 122],
     [126, 126, 33, 33, 35, 35, 36, 36],
     [37, 37, 38, 38, 39, 39, 40, 40],
     [41, 41, 42, 42, 43, 43, 44, 44],
     [45, 45, 46, 46, 47, 47, 48, 57],
     [58, 58, 59, 59, 61, 61, 63, 63],
     [64, 64, 65, 90, 95, 95, 97, 122],
     [126, 126, 33, 33, 35, 35, 36, 36],
     [37, 37, 38, 38, 39, 39, 40, 40],
     [41, 41, 42, 42, 43, 43, 44, 44],
     [45, 45, 46, 46, 47, 47, 48, 57],
     [58, 58, 59, 59, 61, 61, 63, 63],
     [64, 64, 65, 90, 95, 95, 97, 122],
     [126, 126, 33, 33, 35, 35, 36, 36],
     [37, 37, 38, 38, 39, 39, 40, 40],
     [41, 41, 42, 42, 43, 43, 44, 44],
     [45, 45, 46, 46, 47, 47, 48, 57],
     [58, 58, 59, 59, 61, 61, 63, 63],
     [64, 64, 65, 90, 95, 95, 97, 122],
     [126, 126, 33, 33, 35, 35, 36, 36],
     [37, 37, 38, 38, 39, 39, 40, 40],
     [41, 41, 42, 42, 43, 43, 44, 44],
     [45, 45, 46, 46, 47, 47, 48, 57],
     [58, 58, 59, 59, 61, 61, 63, 63],
     [64, 64, 65, 90, 95, 95, 97, 122],
     [126, 126, 33, 33, 35, 35, 36, 36],
     [37, 37, 38, 38, 39, 39, 40, 40],
     [41, 41, 42, 42, 43, 43, 44, 44],
     [45, 45, 46, 46, 47, 47, 48, 57],
     [58, 58, 59, 59, 61, 61, 63, 63],
     [64, 64, 65, 90, 95, 95, 97, 122],
     [126, 126, 33, 33, 36, 36, 37, 37],
     [38, 38, 39, 39, 40, 40, 41, 41],
     [42, 42, 43, 43, 44, 44, 45, 45],
     [46, 46, 48, 48, 49, 53, 54, 54],
     [55, 57, 61, 61, 64, 64, 65, 90],
     [95, 95, 97, 122, 126, 126, 33, 33],
     [36, 36, 37, 37, 38, 38, 39, 39],
     [40, 40, 41, 41, 42, 42, 43, 43],
     [44, 44, 45, 45, 46, 46, 48, 48],
     [49, 57, 61, 61, 64, 64, 65, 90],
     [95, 95, 97, 122, 126, 126, 33, 33],
     [36, 36, 37, 37, 38, 38, 39, 39],
     [40, 40, 41, 41, 42, 42, 43, 43],
     [44, 44, 45, 45, 46, 46, 48, 48],
     [49, 57, 61, 61, 64, 64, 65, 90],
     [95, 95, 97, 122, 126, 126, 33, 33],
     [36, 36, 37, 37, 38, 38, 39, 39],
     [40, 40, 41, 41, 42, 42, 43, 43],
     [44, 44, 45, 45, 46, 46, 48, 48],
     [49, 57, 61, 61, 64, 64, 65, 90],
     [95, 95, 97, 122, 126, 126, 33, 33],
     [36, 36, 37, 37, 38, 38, 39, 39],
     [40, 40, 41, 41, 42, 42, 43, 43],
     [44, 44, 45, 45, 46, 46, 48, 57],
     [59, 59, 61, 61, 63, 63, 64, 64],
     [65, 90, 95, 95, 97, 122, 126, 126],
     [33, 33, 36, 36, 37, 37, 38, 38],
     [39, 39, 40, 40, 41, 41, 42, 42],
     [43, 43, 44, 44, 45, 45, 46, 46],
     [48, 57, 59, 59, 61, 61, 63, 63],
     [64, 64, 65, 90, 95, 95, 97, 122],
     [126, 126, 33, 33, 36, 36, 37, 37],
     [38, 38, 39, 39, 40, 40, 41, 41],
     [42, 42, 43, 43, 44, 44, 45, 45],
     [46, 46, 48, 57, 59, 59, 61, 61],
     [63, 63, 64, 64, 65, 90, 95, 95],
     [97, 122, 126, 126, 33, 33, 36, 36],
     [37, 37, 38, 38, 39, 39, 40, 40],
     [41, 41, 42, 42, 43, 43, 44, 44],
     [45, 45, 46, 46, 48, 57, 59, 59],
     [61, 61, 63, 63, 64, 64, 65, 90],
     [95, 95, 97, 122, 126, 126, 33, 33],
     [36, 36, 37, 37, 38, 38, 39, 39],
     [40, 40, 41, 41, 42, 42, 43, 43],
     [44, 44, 45, 45, 46, 46, 48, 57],
     [59, 59, 61, 61, 63, 63, 64, 64],
     [65, 90, 95, 95, 97, 122, 126, 126],
     [33, 33, 36, 36, 37, 37, 38, 38],
     [39, 39, 40, 40, 41, 41, 42, 42],
     [43, 43, 44, 44, 45, 45, 46, 46],
     [48, 52, 53, 53, 54, 57, 59, 59],
     [61, 61, 63, 63, 64, 64, 65, 90],
     [95, 95, 97, 122, 126, 126, 33, 33],
     [36, 36, 37, 37, 38, 38, 39, 39],
     [40, 40, 41, 41, 42, 42, 43, 43],
     [44, 44, 45, 45, 46, 46, 48, 52],
     [53, 53, 54, 57, 59, 59, 61, 61]]"

definition sup_cond_keys_40 :: "int list list" where
  "sup_cond_keys_40 =
    [[63, 63, 64, 64, 65, 90, 95, 95],
     [97, 122, 126, 126, 33, 33, 36, 36],
     [37, 37, 38, 38, 39, 39, 40, 40],
     [41, 41, 42, 42, 43, 43, 44, 44],
     [45, 45, 46, 46, 48, 50, 51, 51],
     [52, 57, 59, 59, 61, 61, 63, 63],
     [64, 64, 65, 90, 95, 95, 97, 122],
     [126, 126, 33, 33, 36, 36, 37, 37],
     [38, 38, 39, 39, 40, 40, 41, 41],
     [42, 42, 43, 43, 44, 44, 45, 45],
     [46, 46, 48, 53, 54, 57, 59, 59],
     [61, 61, 63, 63, 64, 64, 65, 90],
     [95, 95, 97, 122, 126, 126, 33, 33],
     [35, 35, 36, 36, 37, 37, 38, 38],
     [39, 39, 40, 40, 41, 41, 42, 42],
     [43, 43, 44, 44, 45, 45, 46, 46],
     [47, 47, 48, 57, 58, 58, 59, 59],
     [61, 61, 63, 63, 64, 64, 65, 75],
     [76, 76, 77, 78, 79, 79, 80, 83],
     [84, 84, 85, 90, 91, 91, 93, 93],
     [95, 95, 97, 107, 108, 108, 109, 110],
     [111, 111, 112, 115, 116, 116, 117, 122],
     [126, 126, 33, 33, 35, 35, 36, 36],
     [37, 37, 38, 38, 39, 39, 40, 40],
     [41, 41, 42, 42, 43, 43, 44, 44],
     [45, 45, 46, 46, 47, 47, 48, 57],
     [58, 58, 59, 59, 61, 61, 63, 63],
     [64, 64, 65, 90, 91, 91, 93, 93],
     [95, 95, 97, 122, 126, 126, 48, 57],
     [65, 65, 66, 66, 67, 67, 68, 68],
     [69, 69, 70, 70, 97, 97, 98, 98],
     [99, 99, 100, 100, 101, 101, 102, 102],
     [48, 57, 65, 65, 66, 66, 67, 67],
     [68, 68, 69, 69, 70, 70, 97, 97],
     [98, 98, 99, 99, 100, 100, 101, 101],
     [102, 102, 33, 33, 36, 36, 37, 37],
     [38, 38, 39, 39, 40, 40, 41, 41],
     [42, 42, 43, 43, 44, 44, 45, 45],
     [46, 46, 47, 47, 48, 57, 58, 58],
     [59, 59, 61, 61, 63, 63, 64, 64],
     [65, 90, 91, 91, 93, 93, 95, 95],
     [97, 122, 126, 126, 48, 57, 65, 65],
     [66, 66, 67, 67, 68, 68, 69, 69],
     [70, 70, 97, 97, 98, 98, 99, 99],
     [100, 100, 101, 101, 102, 102, 48, 57],
     [65, 65, 66, 66, 67, 67, 68, 68],
     [69, 69, 70, 70, 97, 97, 98, 98],
     [99, 99, 100, 100, 101, 101, 102, 102],
     [33, 33, 36, 36, 37, 37, 38, 38],
     [39, 39, 40, 40, 41, 41, 42, 42],
     [43, 43, 44, 44, 45, 45, 46, 46],
     [47, 47, 48, 57, 58, 58, 59, 59],
     [61, 61, 63, 63, 64, 64, 65, 90],
     [91, 91, 93, 93, 95, 95, 97, 122],
     [126, 126, 33, 33, 36, 36, 37, 37],
     [38, 38, 39, 39, 40, 40, 41, 41],
     [42, 42, 43, 43, 44, 44, 45, 45],
     [46, 46, 47, 47, 48, 57, 58, 58],
     [59, 59, 61, 61, 63, 63, 64, 64],
     [65, 90, 91, 91, 93, 93, 95, 95],
     [97, 122, 126, 126, 48, 57, 65, 65],
     [66, 66, 67, 67, 68, 68, 69, 69],
     [70, 70, 97, 97, 98, 98, 99, 99],
     [100, 100, 101, 101, 102, 102, 48, 57],
     [65, 65, 66, 66, 67, 67, 68, 68],
     [69, 69, 70, 70, 97, 97, 98, 98],
     [99, 99, 100, 100, 101, 101, 102, 102],
     [33, 33, 36, 36, 37, 37, 38, 38],
     [39, 39, 40, 40, 41, 41, 42, 42],
     [43, 43, 44, 44, 45, 45, 46, 46],
     [47, 47, 48, 57, 58, 58, 61, 61],
     [64, 64, 65, 90, 91, 91, 93, 93],
     [95, 95, 97, 122, 126, 126, 33, 33],
     [35, 35, 36, 36, 37, 37, 38, 38],
     [39, 39, 40, 40, 41, 41, 42, 42],
     [43, 43, 44, 44, 45, 45, 46, 46],
     [47, 47, 48, 57, 58, 58, 59, 59],
     [61, 61, 63, 63, 64, 64, 65, 90],
     [91, 91, 93, 93, 95, 95, 97, 122],
     [126, 126, 33, 33, 35, 35, 36, 36],
     [37, 37, 38, 38, 39, 39, 40, 40],
     [41, 41, 42, 42, 43, 43, 44, 44],
     [45, 45, 46, 46, 47, 47, 48, 57],
     [58, 58, 59, 59, 61, 61, 63, 63],
     [64, 64, 65, 90, 91, 91, 93, 93],
     [95, 95, 97, 122, 126, 126, 48, 57],
     [65, 65, 66, 66, 67, 67, 68, 68],
     [69, 69, 70, 70, 97, 97, 98, 98],
     [99, 99, 100, 100, 101, 101, 102, 102],
     [48, 57, 65, 65, 66, 66, 67, 67],
     [68, 68, 69, 69, 70, 70, 97, 97],
     [98, 98, 99, 99, 100, 100, 101, 101],
     [102, 102, 33, 33, 35, 35, 36, 36],
     [37, 37, 38, 38, 39, 39, 40, 40],
     [41, 41, 42, 42, 43, 43, 44, 44],
     [45, 45, 46, 46, 47, 47, 48, 57],
     [58, 58, 59, 59, 61, 61, 63, 63],
     [64, 64, 65, 90, 91, 91, 93, 93],
     [95, 95, 97, 122, 126, 126, 33, 33],
     [35, 35, 36, 36, 37, 37, 38, 38],
     [39, 39, 40, 40, 41, 41, 42, 42],
     [43, 43, 44, 44, 45, 45, 46, 46],
     [47, 47, 48, 57, 58, 58, 59, 59],
     [61, 61, 63, 63, 64, 64, 65, 90],
     [91, 91, 93, 93, 95, 95, 97, 122],
     [126, 126, 48, 57, 65, 65, 66, 66],
     [67, 67, 68, 68, 69, 69, 70, 70],
     [97, 97, 98, 98, 99, 99, 100, 100],
     [101, 101, 102, 102, 48, 57, 65, 65],
     [66, 66, 67, 67, 68, 68, 69, 69],
     [70, 70, 97, 97, 98, 98, 99, 99],
     [100, 100, 101, 101, 102, 102, 33, 33],
     [36, 36, 37, 37, 38, 38, 39, 39],
     [40, 40, 41, 41, 42, 42, 43, 43],
     [44, 44, 45, 45, 46, 46, 47, 47],
     [48, 57, 58, 58, 61, 61, 63, 63],
     [64, 64, 65, 90, 91, 91, 93, 93],
     [95, 95, 97, 122, 126, 126, 48, 57],
     [65, 65, 66, 66, 67, 67, 68, 68],
     [69, 69, 70, 70, 97, 97, 98, 98],
     [99, 99, 100, 100, 101, 101, 102, 102],
     [48, 57, 65, 65, 66, 66, 67, 67],
     [68, 68, 69, 69, 70, 70, 97, 97],
     [98, 98, 99, 99, 100, 100, 101, 101],
     [102, 102, 33, 33, 36, 36, 37, 37],
     [38, 38, 39, 39, 40, 40, 41, 41],
     [42, 42, 43, 43, 44, 44, 45, 45],
     [46, 46, 47, 47, 48, 57, 58, 58],
     [61, 61, 63, 63, 64, 64, 65, 90],
     [91, 91, 93, 93, 95, 95, 97, 122],
     [126, 126, 48, 57, 65, 65, 66, 66],
     [67, 67, 68, 68, 69, 69, 70, 70],
     [97, 97, 98, 98, 99, 99, 100, 100],
     [101, 101, 102, 102, 48, 57, 65, 65],
     [66, 66, 67, 67, 68, 68, 69, 69],
     [70, 70, 97, 97, 98, 98, 99, 99],
     [100, 100, 101, 101, 102, 102, 33, 33],
     [36, 36, 37, 37, 38, 38, 39, 39],
     [40, 40, 41, 41, 42, 42, 43, 43],
     [44, 44, 45, 45, 46, 46, 47, 47],
     [48, 57, 58, 58, 61, 61, 63, 63],
     [64, 64, 65, 90, 91, 91, 93, 93],
     [95, 95, 97, 122, 126, 126, 33, 33],
     [35, 35, 36, 36, 37, 37, 38, 38],
     [39, 39, 40, 40, 41, 41, 42, 42],
     [43, 43, 44, 44, 45, 45, 46, 46],
     [47, 47, 48, 57, 58, 58, 59, 59],
     [61, 61, 63, 63, 64, 64, 65, 90],
     [91, 91, 93, 93, 95, 95, 97, 122],
     [126, 126, 48, 57, 65, 65, 66, 66]]"

definition sup_cond_keys_41 :: "int list list" where
  "sup_cond_keys_41 =
    [[67, 67, 68, 68, 69, 69, 70, 70],
     [97, 97, 98, 98, 99, 99, 100, 100],
     [101, 101, 102, 102, 48, 57, 65, 65],
     [66, 66, 67, 67, 68, 68, 69, 69],
     [70, 70, 97, 97, 98, 98, 99, 99],
     [100, 100, 101, 101, 102, 102, 33, 33],
     [35, 35, 36, 36, 37, 37, 38, 38],
     [39, 39, 40, 40, 41, 41, 42, 42],
     [43, 43, 44, 44, 45, 45, 46, 46],
     [47, 47, 48, 57, 58, 58, 59, 59],
     [61, 61, 63, 63, 64, 64, 65, 90],
     [91, 91, 93, 93, 95, 95, 97, 122],
     [126, 126, 33, 33, 35, 35, 36, 36],
     [37, 37, 38, 38, 39, 39, 40, 40],
     [41, 41, 42, 42, 43, 43, 44, 44],
     [45, 45, 46, 46, 47, 47, 48, 57],
     [58, 58, 59, 59, 61, 61, 63, 63],
     [64, 64, 65, 81, 82, 82, 83, 90],
     [91, 91, 93, 93, 95, 95, 97, 113],
     [114, 114, 115, 122, 126, 126, 33, 33],
     [35, 35, 36, 36, 37, 37, 38, 38],
     [39, 39, 40, 40, 41, 41, 42, 42],
     [43, 43, 44, 44, 45, 45, 46, 46],
     [47, 47, 48, 57, 58, 58, 59, 59],
     [61, 61, 63, 63, 64, 64, 65, 90],
     [91, 91, 93, 93, 95, 95, 97, 122],
     [126, 126, 33, 33, 35, 35, 36, 36],
     [37, 37, 38, 38, 39, 39, 40, 40],
     [41, 41, 42, 42, 43, 43, 44, 44],
     [45, 45, 46, 46, 47, 47, 48, 57],
     [58, 58, 59, 59, 61, 61, 63, 63],
     [64, 64, 65, 90, 91, 91, 93, 93],
     [95, 95, 96, 96, 97, 122, 126, 126],
     [33, 33, 35, 35, 36, 36, 37, 37],
     [38, 38, 39, 39, 40, 40, 41, 41],
     [42, 42, 43, 43, 44, 44, 45, 45],
     [46, 46, 47, 47, 48, 57, 58, 58],
     [59, 59, 61, 61, 63, 63, 64, 64],
     [65, 90, 91, 91, 93, 93, 95, 95],
     [96, 96, 97, 122, 126, 126, 33, 33],
     [37, 37, 39, 39, 42, 42, 43, 43],
     [45, 45, 46, 46, 48, 57, 59, 59],
     [63, 63, 65, 65, 66, 66, 67, 67],
     [68, 68, 69, 69, 70, 70, 71, 90],
     [95, 95, 96, 96, 97, 97, 98, 98],
     [99, 99, 100, 100, 101, 101, 102, 102],
     [103, 122, 126, 126, 33, 33, 37, 37],
     [39, 39, 42, 42, 43, 43, 45, 45],
     [46, 46, 48, 57, 59, 59, 63, 63],
     [65, 65, 66, 66, 67, 67, 68, 68],
     [69, 69, 70, 70, 71, 90, 95, 95],
     [96, 96, 97, 97, 98, 98, 99, 99],
     [100, 100, 101, 101, 102, 102, 103, 122],
     [126, 126, 33, 33, 35, 35, 36, 36],
     [37, 37, 38, 38, 39, 39, 40, 40],
     [41, 41, 42, 42, 43, 43, 44, 44],
     [45, 45, 46, 46, 47, 47, 48, 57],
     [58, 58, 59, 59, 61, 61, 63, 63],
     [64, 64, 65, 65, 66, 66, 67, 85],
     [86, 86, 87, 90, 91, 91, 93, 93],
     [95, 95, 97, 97, 98, 98, 99, 117],
     [118, 118, 119, 122, 126, 126, 33, 33],
     [35, 35, 36, 36, 37, 37, 38, 38],
     [39, 39, 40, 40, 41, 41, 42, 42],
     [43, 43, 44, 44, 45, 45, 46, 46],
     [47, 47, 48, 57, 58, 58, 59, 59],
     [61, 61, 63, 63, 64, 64, 65, 90],
     [91, 91, 93, 93, 95, 95, 97, 122],
     [126, 126, 33, 33, 35, 35, 36, 36],
     [37, 37, 38, 38, 39, 39, 40, 40],
     [41, 41, 42, 42, 43, 43, 44, 44],
     [45, 45, 46, 46, 47, 47, 48, 57],
     [58, 58, 59, 59, 61, 61, 63, 63],
     [64, 64, 65, 72, 73, 73, 74, 90],
     [91, 91, 93, 93, 95, 95, 97, 104],
     [105, 105, 106, 122, 126, 126, 33, 33],
     [35, 35, 36, 36, 37, 37, 38, 38],
     [39, 39, 40, 40, 41, 41, 42, 42],
     [43, 43, 44, 44, 45, 45, 46, 46],
     [47, 47, 48, 57, 58, 58, 59, 59],
     [61, 61, 63, 63, 64, 64, 65, 67],
     [68, 68, 69, 90, 91, 91, 93, 93],
     [95, 95, 97, 99, 100, 100, 101, 122],
     [126, 126, 33, 33, 35, 35, 36, 36],
     [37, 37, 38, 38, 39, 39, 40, 40],
     [41, 41, 42, 42, 43, 43, 44, 44],
     [45, 45, 46, 46, 47, 47, 48, 57],
     [58, 58, 59, 59, 61, 61, 63, 63],
     [64, 64, 65, 90, 91, 91, 93, 93],
     [95, 95, 97, 122, 126, 126, 33, 33],
     [35, 35, 36, 36, 37, 37, 38, 38],
     [39, 39, 40, 40, 41, 41, 42, 42],
     [43, 43, 44, 44, 45, 45, 46, 46],
     [47, 47, 48, 57, 58, 58, 59, 59],
     [61, 61, 63, 63, 64, 64, 65, 90],
     [91, 91, 93, 93, 95, 95, 96, 96],
     [97, 122, 126, 126, 33, 33, 35, 35],
     [36, 36, 37, 37, 38, 38, 39, 39],
     [40, 40, 41, 41, 42, 42, 43, 43],
     [44, 44, 45, 45, 46, 46, 47, 47],
     [48, 57, 58, 58, 59, 59, 61, 61],
     [63, 63, 64, 64, 65, 90, 91, 91],
     [93, 93, 95, 95, 96, 96, 97, 122],
     [126, 126, 33, 33, 37, 37, 39, 39],
     [42, 42, 43, 43, 45, 45, 46, 46],
     [48, 57, 59, 59, 63, 63, 65, 65],
     [66, 66, 67, 67, 68, 68, 69, 69],
     [70, 70, 71, 90, 95, 95, 96, 96],
     [97, 97, 98, 98, 99, 99, 100, 100],
     [101, 101, 102, 102, 103, 122, 126, 126],
     [33, 33, 37, 37, 39, 39, 42, 42],
     [43, 43, 45, 45, 46, 46, 48, 57],
     [59, 59, 63, 63, 65, 65, 66, 66],
     [67, 67, 68, 68, 69, 69, 70, 70],
     [71, 90, 95, 95, 96, 96, 97, 97],
     [98, 98, 99, 99, 100, 100, 101, 101],
     [102, 102, 103, 122, 126, 126, 33, 33],
     [35, 35, 36, 36, 37, 37, 38, 38],
     [39, 39, 40, 40, 41, 41, 42, 42],
     [43, 43, 44, 44, 45, 45, 46, 46],
     [47, 47, 48, 57, 58, 58, 59, 59],
     [61, 61, 63, 63, 64, 64, 65, 81],
     [82, 82, 83, 90, 91, 91, 93, 93],
     [95, 95, 97, 113, 114, 114, 115, 122],
     [126, 126, 33, 33, 35, 35, 36, 36],
     [37, 37, 38, 38, 39, 39, 40, 40],
     [41, 41, 42, 42, 43, 43, 44, 44],
     [45, 45, 46, 46, 47, 47, 48, 57],
     [58, 58, 59, 59, 61, 61, 63, 63],
     [64, 64, 65, 65, 66, 90, 91, 91],
     [93, 93, 95, 95, 97, 97, 98, 122],
     [126, 126, 33, 33, 35, 35, 36, 36],
     [37, 37, 38, 38, 39, 39, 40, 40],
     [41, 41, 42, 42, 43, 43, 44, 44],
     [45, 45, 46, 46, 47, 47, 48, 57],
     [58, 58, 59, 59, 61, 61, 63, 63],
     [64, 64, 65, 77, 78, 78, 79, 90],
     [91, 91, 93, 93, 95, 95, 97, 109],
     [110, 110, 111, 122, 126, 126, 33, 33],
     [35, 35, 36, 36, 37, 37, 38, 38],
     [39, 39, 40, 40, 41, 41, 42, 42],
     [43, 43, 44, 44, 45, 45, 46, 46],
     [47, 47, 48, 57, 58, 58, 59, 59],
     [61, 61, 63, 63, 64, 64, 65, 82],
     [83, 83, 84, 90, 91, 91, 93, 93],
     [95, 95, 97, 114, 115, 115, 116, 122],
     [126, 126, 33, 33, 35, 35, 36, 36],
     [37, 37, 38, 38, 39, 39, 40, 40],
     [41, 41, 42, 42, 43, 43, 44, 44],
     [45, 45, 46, 46, 47, 47, 48, 57]]"

definition sup_cond_keys_42 :: "int list list" where
  "sup_cond_keys_42 =
    [[58, 58, 59, 59, 61, 61, 63, 63],
     [64, 64, 65, 79, 80, 80, 81, 90],
     [91, 91, 93, 93, 95, 95, 97, 111],
     [112, 112, 113, 122, 126, 126, 33, 33],
     [35, 35, 36, 36, 37, 37, 38, 38],
     [39, 39, 40, 40, 41, 41, 42, 42],
     [43, 43, 44, 44, 45, 45, 46, 46],
     [47, 47, 48, 57, 58, 58, 59, 59],
     [61, 61, 63, 63, 64, 64, 65, 78],
     [79, 79, 80, 90, 91, 91, 93, 93],
     [95, 95, 97, 110, 111, 111, 112, 122],
     [126, 126, 33, 33, 35, 35, 36, 36],
     [37, 37, 38, 38, 39, 39, 40, 40],
     [41, 41, 42, 42, 43, 43, 44, 44],
     [45, 45, 46, 46, 47, 47, 48, 57],
     [58, 58, 59, 59, 61, 61, 63, 63],
     [64, 64, 65, 81, 82, 82, 83, 90],
     [91, 91, 93, 93, 95, 95, 97, 113],
     [114, 114, 115, 122, 126, 126, 33, 33],
     [35, 35, 36, 36, 37, 37, 38, 38],
     [39, 39, 40, 40, 41, 41, 42, 42],
     [43, 43, 44, 44, 45, 45, 46, 46],
     [47, 47, 48, 57, 58, 58, 59, 59],
     [61, 61, 63, 63, 64, 64, 65, 83],
     [84, 84, 85, 90, 91, 91, 93, 93],
     [95, 95, 97, 115, 116, 116, 117, 122],
     [126, 126, 33, 33, 35, 35, 36, 36],
     [37, 37, 38, 38, 39, 39, 40, 40],
     [41, 41, 42, 42, 43, 43, 44, 44],
     [45, 45, 46, 46, 47, 47, 48, 57],
     [58, 58, 59, 59, 61, 61, 63, 63],
     [64, 64, 65, 90, 91, 91, 93, 93],
     [95, 95, 97, 122, 126, 126, 33, 33],
     [35, 35, 36, 36, 37, 37, 38, 38],
     [39, 39, 40, 40, 41, 41, 42, 42],
     [43, 43, 44, 44, 45, 45, 46, 46],
     [47, 47, 48, 57, 58, 58, 59, 59],
     [61, 61, 63, 63, 64, 64, 65, 82],
     [83, 83, 84, 84, 85, 85, 86, 86],
     [87, 87, 88, 90, 91, 91, 93, 93],
     [95, 95, 96, 96, 97, 114, 115, 115],
     [116, 116, 117, 117, 118, 118, 119, 119],
     [120, 122, 126, 126, 33, 33, 35, 35],
     [36, 36, 37, 37, 38, 38, 39, 39],
     [40, 40, 41, 41, 42, 42, 43, 43],
     [44, 44, 45, 45, 46, 46, 47, 47],
     [48, 57, 58, 58, 59, 59, 61, 61],
     [63, 63, 64, 64, 65, 90, 91, 91],
     [93, 93, 95, 95, 96, 96, 97, 122],
     [126, 126, 33, 33, 37, 37, 39, 39],
     [42, 42, 43, 43, 45, 45, 46, 46],
     [48, 57, 59, 59, 63, 63, 65, 65],
     [66, 66, 67, 67, 68, 68, 69, 69],
     [70, 70, 71, 90, 95, 95, 96, 96],
     [97, 97, 98, 98, 99, 99, 100, 100],
     [101, 101, 102, 102, 103, 122, 126, 126],
     [33, 33, 37, 37, 39, 39, 42, 42],
     [43, 43, 45, 45, 46, 46, 48, 57],
     [59, 59, 63, 63, 65, 65, 66, 66],
     [67, 67, 68, 68, 69, 69, 70, 70],
     [71, 90, 95, 95, 96, 96, 97, 97],
     [98, 98, 99, 99, 100, 100, 101, 101],
     [102, 102, 103, 122, 126, 126, 33, 33],
     [35, 35, 36, 36, 37, 37, 38, 38],
     [39, 39, 40, 40, 41, 41, 42, 42],
     [43, 43, 44, 44, 45, 45, 46, 46],
     [47, 47, 48, 57, 58, 58, 59, 59],
     [61, 61, 63, 63, 64, 64, 65, 66],
     [67, 67, 68, 90, 91, 91, 93, 93],
     [95, 95, 96, 96, 97, 98, 99, 99],
     [100, 122, 126, 126, 33, 33, 35, 35],
     [36, 36, 37, 37, 38, 38, 39, 39],
     [40, 40, 41, 41, 42, 42, 43, 43],
     [44, 44, 45, 45, 46, 46, 47, 47],
     [48, 57, 58, 58, 59, 59, 61, 61],
     [63, 63, 64, 64, 65, 83, 84, 84],
     [85, 90, 91, 91, 93, 93, 95, 95],
     [96, 96, 97, 115, 116, 116, 117, 122],
     [126, 126, 33, 33, 35, 35, 36, 36],
     [37, 37, 38, 38, 39, 39, 40, 40],
     [41, 41, 42, 42, 43, 43, 44, 44],
     [45, 45, 46, 46, 47, 47, 48, 57],
     [58, 58, 59, 59, 61, 61, 63, 63],
     [64, 64, 65, 79, 80, 80, 81, 90],
     [91, 91, 93, 93, 95, 95, 96, 96],
     [97, 111, 112, 112, 113, 122, 126, 126],
     [33, 33, 35, 35, 36, 36, 37, 37],
     [38, 38, 39, 39, 40, 40, 41, 41],
     [42, 42, 43, 43, 44, 44, 45, 45],
     [46, 46, 47, 47, 48, 57, 58, 58],
     [59, 59, 61, 61, 63, 63, 64, 64],
     [65, 90, 91, 91, 93, 93, 95, 95],
     [96, 96, 97, 122, 126, 126, 33, 33],
     [35, 35, 36, 36, 37, 37, 38, 38],
     [39, 39, 40, 40, 41, 41, 42, 42],
     [43, 43, 44, 44, 45, 45, 46, 46],
     [47, 47, 48, 57, 58, 58, 59, 59],
     [61, 61, 63, 63, 64, 64, 65, 66],
     [67, 67, 68, 75, 76, 76, 77, 90],
     [91, 91, 93, 93, 95, 95, 96, 96],
     [97, 98, 99, 99, 100, 107, 108, 108],
     [109, 122, 126, 126, 33, 33, 35, 35],
     [36, 36, 37, 37, 38, 38, 39, 39],
     [40, 40, 41, 41, 42, 42, 43, 43],
     [44, 44, 45, 45, 46, 46, 47, 47],
     [48, 57, 58, 58, 59, 59, 61, 61],
     [63, 63, 64, 64, 65, 79, 80, 80],
     [81, 90, 91, 91, 93, 93, 95, 95],
     [96, 96, 97, 111, 112, 112, 113, 122],
     [126, 126, 33, 33, 35, 35, 36, 36],
     [37, 37, 38, 38, 39, 39, 40, 40],
     [41, 41, 42, 42, 43, 43, 44, 44],
     [45, 45, 46, 46, 47, 47, 48, 57],
     [58, 58, 59, 59, 61, 61, 63, 63],
     [64, 64, 65, 90, 91, 91, 93, 93],
     [95, 95, 96, 96, 97, 122, 126, 126],
     [33, 33, 35, 35, 36, 36, 37, 37],
     [38, 38, 39, 39, 40, 40, 41, 41],
     [42, 42, 43, 43, 44, 44, 45, 45],
     [46, 46, 47, 47, 48, 57, 58, 58],
     [59, 59, 61, 61, 63, 63, 64, 64],
     [65, 82, 83, 83, 84, 90, 91, 91],
     [93, 93, 95, 95, 96, 96, 97, 114],
     [115, 115, 116, 122, 126, 126, 33, 33],
     [35, 35, 36, 36, 37, 37, 38, 38],
     [39, 39, 40, 40, 41, 41, 42, 42],
     [43, 43, 44, 44, 45, 45, 46, 46],
     [47, 47, 48, 57, 58, 58, 59, 59],
     [61, 61, 63, 63, 64, 64, 65, 90],
     [91, 91, 93, 93, 95, 95, 96, 96],
     [97, 122, 126, 126, 33, 33, 35, 35],
     [36, 36, 37, 37, 38, 38, 39, 39],
     [40, 40, 41, 41, 42, 42, 43, 43],
     [44, 44, 45, 45, 46, 46, 47, 47],
     [48, 57, 58, 58, 59, 59, 61, 61],
     [63, 63, 64, 64, 65, 67, 68, 68],
     [69, 90, 91, 91, 93, 93, 95, 95],
     [96, 96, 97, 99, 100, 100, 101, 122],
     [126, 126, 33, 33, 35, 35, 36, 36],
     [37, 37, 38, 38, 39, 39, 40, 40],
     [41, 41, 42, 42, 43, 43, 44, 44],
     [45, 45, 46, 46, 47, 47, 48, 57],
     [58, 58, 59, 59, 61, 61, 63, 63],
     [64, 64, 65, 79, 80, 80, 81, 90],
     [91, 91, 93, 93, 95, 95, 96, 96],
     [97, 111, 112, 112, 113, 122, 126, 126],
     [33, 33, 35, 35, 36, 36, 37, 37],
     [38, 38, 39, 39, 40, 40, 41, 41],
     [42, 42, 43, 43, 44, 44, 45, 45],
     [46, 46, 47, 47, 48, 57, 58, 58]]"

definition sup_cond_keys_43 :: "int list list" where
  "sup_cond_keys_43 =
    [[59, 59, 61, 61, 63, 63, 64, 64],
     [65, 90, 91, 91, 93, 93, 95, 95],
     [96, 96, 97, 122, 126, 126, 33, 33],
     [35, 35, 36, 36, 37, 37, 38, 38],
     [39, 39, 40, 40, 41, 41, 42, 42],
     [43, 43, 44, 44, 45, 45, 46, 46],
     [47, 47, 48, 57, 58, 58, 59, 59],
     [61, 61, 63, 63, 64, 64, 65, 82],
     [83, 83, 84, 90, 91, 91, 93, 93],
     [95, 95, 96, 96, 97, 114, 115, 115],
     [116, 122, 126, 126, 33, 33, 35, 35],
     [36, 36, 37, 37, 38, 38, 39, 39],
     [40, 40, 41, 41, 42, 42, 43, 43],
     [44, 44, 45, 45, 46, 46, 47, 47],
     [48, 57, 58, 58, 59, 59, 61, 61],
     [63, 63, 64, 64, 65, 82, 83, 83],
     [84, 90, 91, 91, 93, 93, 95, 95],
     [96, 96, 97, 114, 115, 115, 116, 122],
     [126, 126, 33, 33, 35, 35, 36, 36],
     [37, 37, 38, 38, 39, 39, 40, 40],
     [41, 41, 42, 42, 43, 43, 44, 44],
     [45, 45, 46, 46, 47, 47, 48, 57],
     [58, 58, 59, 59, 61, 61, 63, 63],
     [64, 64, 65, 90, 91, 91, 93, 93],
     [95, 95, 96, 96, 97, 122, 126, 126],
     [33, 33, 35, 35, 36, 36, 37, 37],
     [38, 38, 39, 39, 40, 40, 41, 41],
     [42, 42, 43, 43, 44, 44, 45, 45],
     [46, 46, 47, 47, 48, 48, 49, 49],
     [50, 50, 51, 57, 58, 58, 59, 59],
     [61, 61, 63, 63, 64, 64, 65, 90],
     [95, 95, 97, 122, 126, 126, 33, 33],
     [35, 35, 36, 36, 37, 37, 38, 38],
     [39, 39, 40, 40, 41, 41, 42, 42],
     [43, 43, 44, 44, 45, 45, 46, 46],
     [47, 47, 48, 57, 58, 58, 59, 59],
     [61, 61, 63, 63, 64, 64, 65, 90],
     [95, 95, 97, 122, 126, 126, 33, 33],
     [35, 35, 36, 36, 37, 37, 38, 38],
     [39, 39, 40, 40, 41, 41, 42, 42],
     [43, 43, 44, 44, 45, 45, 46, 46],
     [47, 47, 48, 48, 49, 49, 50, 50],
     [51, 57, 58, 58, 59, 59, 61, 61],
     [63, 63, 64, 64, 65, 90, 95, 95],
     [97, 122, 126, 126, 33, 33, 35, 35],
     [36, 36, 37, 37, 38, 38, 39, 39],
     [40, 40, 41, 41, 42, 42, 43, 43],
     [44, 44, 45, 45, 46, 46, 47, 47],
     [48, 57, 58, 58, 59, 59, 61, 61],
     [63, 63, 64, 64, 65, 90, 95, 95],
     [97, 122, 126, 126, 33, 33, 35, 35],
     [36, 36, 37, 37, 38, 38, 39, 39],
     [40, 40, 41, 41, 42, 42, 43, 43],
     [44, 44, 45, 45, 46, 46, 47, 47],
     [48, 48, 49, 49, 50, 50, 51, 57],
     [58, 58, 59, 59, 61, 61, 63, 63],
     [64, 64, 65, 90, 95, 95, 97, 122],
     [126, 126, 33, 33, 35, 35, 36, 36],
     [37, 37, 38, 38, 39, 39, 40, 40],
     [41, 41, 42, 42, 43, 43, 44, 44],
     [45, 45, 46, 46, 47, 47, 48, 57],
     [58, 58, 59, 59, 61, 61, 63, 63],
     [64, 64, 65, 90, 95, 95, 97, 122],
     [126, 126, 33, 33, 35, 35, 36, 36],
     [37, 37, 38, 38, 39, 39, 40, 40],
     [41, 41, 42, 42, 43, 43, 44, 44],
     [45, 45, 46, 46, 47, 47, 48, 57],
     [58, 58, 59, 59, 61, 61, 63, 63],
     [64, 64, 65, 90, 95, 95, 97, 122],
     [126, 126, 33, 33, 35, 35, 36, 36],
     [37, 37, 38, 38, 39, 39, 40, 40],
     [41, 41, 42, 42, 43, 43, 44, 44],
     [45, 45, 46, 46, 47, 47, 48, 57],
     [58, 58, 59, 59, 61, 61, 63, 63],
     [64, 64, 65, 90, 95, 95, 97, 122],
     [126, 126, 33, 33, 35, 35, 36, 36],
     [37, 37, 38, 38, 39, 39, 40, 40],
     [41, 41, 42, 42, 43, 43, 44, 44],
     [45, 45, 46, 46, 47, 47, 48, 52],
     [53, 53, 54, 57, 58, 58, 59, 59],
     [61, 61, 63, 63, 64, 64, 65, 90],
     [95, 95, 97, 122, 126, 126, 33, 33],
     [35, 35, 36, 36, 37, 37, 38, 38],
     [39, 39, 40, 40, 41, 41, 42, 42],
     [43, 43, 44, 44, 45, 45, 46, 46],
     [47, 47, 48, 53, 54, 57, 58, 58],
     [59, 59, 61, 61, 63, 63, 64, 64],
     [65, 90, 95, 95, 97, 122, 126, 126],
     [33, 33, 35, 35, 36, 36, 37, 37],
     [38, 38, 39, 39, 40, 40, 41, 41],
     [42, 42, 43, 43, 44, 44, 45, 45],
     [46, 46, 47, 47, 48, 57, 58, 58],
     [59, 59, 61, 61, 63, 63, 64, 64],
     [65, 90, 95, 95, 97, 122, 126, 126],
     [33, 33, 35, 35, 36, 36, 37, 37],
     [38, 38, 39, 39, 40, 40, 41, 41],
     [42, 42, 43, 43, 44, 44, 45, 45],
     [46, 46, 47, 47, 48, 57, 58, 58],
     [59, 59, 61, 61, 63, 63, 64, 64],
     [65, 90, 95, 95, 97, 122, 126, 126],
     [33, 33, 35, 35, 36, 36, 37, 37],
     [38, 38, 39, 39, 40, 40, 41, 41],
     [42, 42, 43, 43, 44, 44, 45, 45],
     [46, 46, 47, 47, 48, 52, 53, 53],
     [54, 57, 58, 58, 59, 59, 61, 61],
     [63, 63, 64, 64, 65, 90, 95, 95],
     [97, 122, 126, 126, 33, 33, 35, 35],
     [36, 36, 37, 37, 38, 38, 39, 39],
     [40, 40, 41, 41, 42, 42, 43, 43],
     [44, 44, 45, 45, 46, 46, 47, 47],
     [48, 53, 54, 57, 58, 58, 59, 59],
     [61, 61, 63, 63, 64, 64, 65, 90],
     [95, 95, 97, 122, 126, 126, 33, 33],
     [35, 35, 36, 36, 37, 37, 38, 38],
     [39, 39, 40, 40, 41, 41, 42, 42],
     [43, 43, 44, 44, 45, 45, 46, 46],
     [47, 47, 48, 57, 58, 58, 59, 59],
     [61, 61, 63, 63, 64, 64, 65, 90],
     [95, 95, 97, 122, 126, 126, 33, 33],
     [35, 35, 36, 36, 37, 37, 38, 38],
     [39, 39, 40, 40, 41, 41, 42, 42],
     [43, 43, 44, 44, 45, 45, 46, 46],
     [47, 47, 48, 57, 58, 58, 59, 59],
     [61, 61, 63, 63, 64, 64, 65, 90],
     [95, 95, 97, 122, 126, 126, 33, 33],
     [35, 35, 36, 36, 37, 37, 38, 38],
     [39, 39, 40, 40, 41, 41, 42, 42],
     [43, 43, 44, 44, 45, 45, 46, 46],
     [47, 47, 48, 52, 53, 53, 54, 57],
     [58, 58, 59, 59, 61, 61, 63, 63],
     [64, 64, 65, 90, 95, 95, 97, 122],
     [126, 126, 33, 33, 35, 35, 36, 36],
     [37, 37, 38, 38, 39, 39, 40, 40],
     [41, 41, 42, 42, 43, 43, 44, 44],
     [45, 45, 46, 46, 47, 47, 48, 53],
     [54, 57, 58, 58, 59, 59, 61, 61],
     [63, 63, 64, 64, 65, 90, 95, 95],
     [97, 122, 126, 126, 33, 33, 35, 35],
     [36, 36, 37, 37, 38, 38, 39, 39],
     [40, 40, 41, 41, 42, 42, 43, 43],
     [44, 44, 45, 45, 46, 46, 47, 47],
     [48, 57, 58, 58, 59, 59, 61, 61],
     [63, 63, 64, 64, 65, 90, 95, 95],
     [97, 122, 126, 126, 33, 33, 35, 35],
     [36, 36, 37, 37, 38, 38, 39, 39],
     [40, 40, 41, 41, 42, 42, 43, 43],
     [44, 44, 45, 45, 46, 46, 47, 47],
     [48, 57, 58, 58, 59, 59, 61, 61],
     [63, 63, 64, 64, 65, 90, 95, 95],
     [97, 122, 126, 126, 33, 33, 35, 35]]"

definition sup_cond_keys_44 :: "int list list" where
  "sup_cond_keys_44 =
    [[36, 36, 37, 37, 38, 38, 39, 39],
     [40, 40, 41, 41, 42, 42, 43, 43],
     [44, 44, 45, 45, 46, 46, 47, 47],
     [48, 52, 53, 53, 54, 57, 58, 58],
     [59, 59, 61, 61, 63, 63, 64, 64],
     [65, 90, 95, 95, 97, 122, 126, 126],
     [33, 33, 35, 35, 36, 36, 37, 37],
     [38, 38, 39, 39, 40, 40, 41, 41],
     [42, 42, 43, 43, 44, 44, 45, 45],
     [46, 46, 47, 47, 48, 53, 54, 57],
     [58, 58, 59, 59, 61, 61, 63, 63],
     [64, 64, 65, 90, 95, 95, 97, 122],
     [126, 126, 43, 43, 45, 45, 46, 46],
     [48, 57, 58, 58, 65, 90, 97, 122],
     [43, 43, 45, 45, 46, 46, 48, 57],
     [58, 58, 65, 68, 69, 69, 70, 90],
     [97, 100, 101, 101, 102, 122, 43, 43],
     [45, 45, 46, 46, 48, 57, 58, 58],
     [65, 75, 76, 76, 77, 90, 97, 107],
     [108, 108, 109, 122, 43, 43, 45, 45],
     [46, 46, 48, 57, 58, 58, 65, 90],
     [97, 122, 35, 35, 40, 40, 41, 41],
     [42, 42, 43, 43, 45, 45, 46, 46],
     [48, 57, 65, 65, 66, 66, 67, 67],
     [68, 68, 69, 69, 70, 70, 97, 97],
     [98, 98, 99, 99, 100, 100, 101, 101],
     [102, 102, 35, 35, 40, 40, 41, 41],
     [42, 42, 45, 45, 46, 46, 48, 57],
     [59, 59, 65, 65, 66, 66, 67, 67],
     [68, 68, 69, 69, 70, 70, 97, 97],
     [98, 98, 99, 99, 100, 100, 101, 101],
     [102, 102, 45, 45, 48, 57, 65, 79],
     [80, 80, 81, 90, 97, 111, 112, 112],
     [113, 122, 45, 45, 48, 57, 59, 59],
     [61, 61, 65, 90, 97, 122, 33, 33],
     [36, 36, 37, 37, 38, 38, 39, 39],
     [40, 40, 41, 41, 42, 42, 43, 43],
     [45, 45, 46, 46, 47, 47, 48, 57],
     [58, 58, 65, 90, 91, 91, 93, 93],
     [95, 95, 97, 122, 126, 126, 33, 33],
     [36, 36, 37, 37, 38, 38, 39, 39],
     [40, 40, 41, 41, 42, 42, 43, 43],
     [45, 45, 46, 46, 47, 47, 48, 57],
     [58, 58, 59, 59, 65, 90, 91, 91],
     [93, 93, 95, 95, 97, 122, 126, 126],
     [48, 57, 65, 65, 66, 66, 67, 67],
     [68, 68, 69, 69, 70, 70, 97, 97],
     [98, 98, 99, 99, 100, 100, 101, 101],
     [102, 102, 48, 57, 65, 65, 66, 66],
     [67, 67, 68, 68, 69, 69, 70, 70],
     [97, 97, 98, 98, 99, 99, 100, 100],
     [101, 101, 102, 102, 45, 45, 48, 57],
     [59, 59, 61, 61, 65, 71, 72, 72],
     [73, 90, 97, 103, 104, 104, 105, 122],
     [45, 45, 48, 57, 59, 59, 61, 61],
     [65, 78, 79, 79, 80, 90, 97, 110],
     [111, 111, 112, 122, 45, 45, 48, 57],
     [59, 59, 61, 61, 65, 77, 78, 78],
     [79, 90, 97, 109, 110, 110, 111, 122],
     [45, 45, 48, 57, 59, 59, 61, 61],
     [65, 68, 69, 69, 70, 90, 97, 100],
     [101, 101, 102, 122, 45, 45, 48, 57],
     [59, 59, 61, 61, 65, 90, 97, 122],
     [45, 45, 48, 57, 59, 59, 61, 61],
     [65, 66, 67, 67, 68, 90, 97, 98],
     [99, 99, 100, 122, 45, 45, 48, 57],
     [59, 59, 61, 61, 65, 78, 79, 79],
     [80, 90, 97, 110, 111, 111, 112, 122],
     [45, 45, 48, 57, 59, 59, 61, 61],
     [65, 77, 78, 78, 79, 90, 97, 109],
     [110, 110, 111, 122, 45, 45, 48, 57],
     [59, 59, 61, 61, 65, 83, 84, 84],
     [85, 90, 97, 115, 116, 116, 117, 122],
     [45, 45, 48, 57, 59, 59, 61, 61],
     [65, 68, 69, 69, 70, 90, 97, 100],
     [101, 101, 102, 122, 45, 45, 48, 57],
     [59, 59, 61, 61, 65, 87, 88, 88],
     [89, 90, 97, 119, 120, 120, 121, 122],
     [45, 45, 48, 57, 59, 59, 61, 61],
     [65, 83, 84, 84, 85, 90, 97, 115],
     [116, 116, 117, 122, 45, 45, 48, 57],
     [59, 59, 61, 61, 65, 90, 97, 122],
     [33, 33, 36, 36, 37, 37, 38, 38],
     [39, 39, 40, 40, 41, 41, 42, 42],
     [43, 43, 45, 45, 46, 46, 47, 47],
     [48, 57, 58, 58, 65, 90, 91, 91],
     [93, 93, 95, 95, 97, 122, 126, 126],
     [33, 33, 36, 36, 37, 37, 38, 38],
     [39, 39, 40, 40, 41, 41, 42, 42],
     [43, 43, 45, 45, 46, 46, 47, 47],
     [48, 57, 58, 58, 59, 59, 65, 90],
     [91, 91, 93, 93, 95, 95, 97, 122],
     [126, 126, 33, 33, 36, 36, 37, 37],
     [38, 38, 39, 39, 40, 40, 41, 41],
     [42, 42, 43, 43, 45, 45, 46, 46],
     [47, 47, 48, 57, 58, 58, 59, 59],
     [65, 90, 91, 91, 93, 93, 95, 95],
     [97, 122, 126, 126, 33, 33, 36, 36],
     [37, 37, 38, 38, 39, 39, 40, 40],
     [41, 41, 42, 42, 43, 43, 45, 45],
     [46, 46, 47, 47, 48, 57, 58, 58],
     [59, 59, 65, 90, 91, 91, 93, 93],
     [95, 95, 97, 122, 126, 126, 33, 33],
     [36, 36, 37, 37, 38, 38, 39, 39],
     [40, 40, 41, 41, 42, 42, 43, 43],
     [45, 45, 46, 46, 47, 47, 48, 57],
     [58, 58, 59, 59, 65, 90, 91, 91],
     [93, 93, 95, 95, 97, 122, 126, 126],
     [33, 33, 36, 36, 37, 37, 38, 38],
     [39, 39, 40, 40, 41, 41, 42, 42],
     [43, 43, 45, 45, 46, 46, 47, 47],
     [48, 57, 58, 58, 59, 59, 65, 90],
     [91, 91, 93, 93, 95, 95, 97, 122],
     [126, 126, 33, 33, 36, 36, 37, 37],
     [38, 38, 39, 39, 40, 40, 41, 41],
     [42, 42, 43, 43, 45, 45, 46, 46],
     [47, 47, 48, 57, 58, 58, 59, 59],
     [65, 90, 91, 91, 93, 93, 95, 95],
     [97, 122, 126, 126, 33, 33, 36, 36],
     [37, 37, 38, 38, 39, 39, 40, 40],
     [41, 41, 42, 42, 43, 43, 45, 45],
     [46, 46, 47, 47, 48, 57, 58, 58],
     [59, 59, 65, 90, 91, 91, 93, 93],
     [95, 95, 97, 122, 126, 126, 33, 33],
     [36, 36, 37, 37, 38, 38, 39, 39],
     [40, 40, 41, 41, 42, 42, 43, 43],
     [45, 45, 46, 46, 47, 47, 48, 57],
     [58, 58, 59, 59, 65, 90, 91, 91],
     [93, 93, 95, 95, 97, 122, 126, 126],
     [35, 35, 40, 40, 41, 41, 42, 42],
     [45, 45, 46, 46, 48, 57, 65, 65],
     [66, 66, 67, 67, 68, 68, 69, 69],
     [70, 70, 97, 97, 98, 98, 99, 99],
     [100, 100, 101, 101, 102, 102, 40, 40],
     [41, 41, 45, 45, 46, 46, 48, 57],
     [40, 40, 41, 41, 45, 45, 46, 46],
     [48, 57, 59, 59, 9, 9, 13, 13],
     [32, 32, 33, 33, 37, 37, 39, 39],
     [42, 42, 43, 43, 45, 45, 46, 46],
     [48, 57, 58, 58, 60, 60, 65, 90],
     [95, 95, 96, 96, 97, 122, 126, 126],
     [9, 9, 13, 13, 32, 32, 33, 33],
     [35, 35, 36, 36, 37, 37, 38, 38],
     [39, 39, 40, 40, 41, 41, 42, 42],
     [43, 43, 45, 45, 46, 46, 47, 47],
     [48, 48, 49, 49, 50, 50, 51, 57],
     [58, 58, 59, 59, 61, 61, 64, 64],
     [65, 90, 91, 91, 95, 95, 97, 122],
     [126, 126, 9, 9, 13, 13, 32, 32],
     [33, 33, 35, 35, 36, 36, 37, 37]]"

definition sup_cond_keys_45 :: "int list list" where
  "sup_cond_keys_45 =
    [[38, 38, 39, 39, 40, 40, 41, 41],
     [42, 42, 43, 43, 45, 45, 46, 46],
     [47, 47, 48, 57, 58, 58, 59, 59],
     [61, 61, 64, 64, 65, 90, 95, 95],
     [97, 122, 126, 126, 33, 33, 35, 35],
     [36, 36, 37, 37, 38, 38, 39, 39],
     [40, 40, 41, 41, 42, 42, 43, 43],
     [45, 45, 46, 46, 47, 47, 48, 57],
     [58, 58, 61, 61, 64, 64, 65, 90],
     [95, 95, 97, 122, 126, 126, 48, 57],
     [65, 65, 66, 66, 67, 67, 68, 68],
     [69, 69, 70, 70, 97, 97, 98, 98],
     [99, 99, 100, 100, 101, 101, 102, 102],
     [48, 57, 65, 65, 66, 66, 67, 67],
     [68, 68, 69, 69, 70, 70, 97, 97],
     [98, 98, 99, 99, 100, 100, 101, 101],
     [102, 102, 33, 33, 36, 36, 37, 37],
     [38, 38, 39, 39, 40, 40, 41, 41],
     [42, 42, 43, 43, 45, 45, 46, 46],
     [48, 57, 61, 61, 64, 64, 65, 90],
     [95, 95, 97, 122, 126, 126, 48, 57],
     [65, 65, 66, 66, 67, 67, 68, 68],
     [69, 69, 70, 70, 97, 97, 98, 98],
     [99, 99, 100, 100, 101, 101, 102, 102],
     [48, 57, 65, 65, 66, 66, 67, 67],
     [68, 68, 69, 69, 70, 70, 97, 97],
     [98, 98, 99, 99, 100, 100, 101, 101],
     [102, 102, 48, 48, 49, 49, 50, 50],
     [51, 57, 65, 90, 91, 91, 97, 122],
     [45, 45, 46, 46, 48, 57, 65, 90],
     [95, 95, 97, 122, 45, 45, 48, 57],
     [65, 90, 95, 95, 97, 122, 45, 45],
     [46, 46, 48, 57, 65, 90, 95, 95],
     [97, 122, 48, 57, 65, 90, 97, 122],
     [9, 9, 13, 13, 32, 32, 45, 45],
     [46, 46, 48, 57, 58, 58, 59, 59],
     [65, 90, 95, 95, 97, 122, 45, 45],
     [48, 57, 65, 90, 95, 95, 97, 122],
     [9, 9, 13, 13, 32, 32, 48, 57],
     [58, 58, 59, 59, 65, 90, 97, 122],
     [48, 48, 49, 53, 54, 54, 55, 57],
     [48, 48, 49, 57, 48, 48, 49, 57],
     [49, 57, 9, 9, 13, 13, 32, 32],
     [59, 59, 9, 9, 13, 13, 32, 32],
     [48, 57, 59, 59, 9, 9, 13, 13],
     [32, 32, 48, 57, 59, 59, 9, 9],
     [13, 13, 32, 32, 48, 57, 59, 59],
     [9, 9, 13, 13, 32, 32, 48, 57],
     [59, 59, 9, 9, 13, 13, 32, 32],
     [48, 52, 53, 53, 54, 57, 59, 59],
     [9, 9, 13, 13, 32, 32, 48, 52],
     [53, 53, 54, 57, 59, 59, 9, 9],
     [13, 13, 32, 32, 48, 50, 51, 51],
     [52, 57, 59, 59, 9, 9, 13, 13],
     [32, 32, 48, 53, 59, 59, 48, 48],
     [49, 49, 50, 50, 51, 57, 65, 90],
     [97, 122, 45, 45, 46, 46, 48, 57],
     [65, 90, 95, 95, 97, 122, 48, 48],
     [49, 49, 50, 50, 51, 57, 65, 90],
     [97, 122, 45, 45, 46, 46, 48, 57],
     [65, 90, 95, 95, 97, 122, 48, 48],
     [49, 49, 50, 50, 51, 57, 65, 90],
     [97, 122, 9, 9, 13, 13, 32, 32],
     [45, 45, 46, 46, 48, 57, 58, 58],
     [59, 59, 65, 90, 95, 95, 97, 122],
     [9, 9, 13, 13, 32, 32, 45, 45],
     [46, 46, 48, 57, 58, 58, 59, 59],
     [65, 90, 95, 95, 97, 122, 9, 9],
     [13, 13, 32, 32, 45, 45, 46, 46],
     [48, 57, 58, 58, 59, 59, 65, 90],
     [95, 95, 97, 122, 9, 9, 13, 13],
     [32, 32, 45, 45, 46, 46, 48, 52],
     [53, 53, 54, 57, 58, 58, 59, 59],
     [65, 90, 95, 95, 97, 122, 9, 9],
     [13, 13, 32, 32, 45, 45, 46, 46],
     [48, 53, 54, 57, 58, 58, 59, 59],
     [65, 90, 95, 95, 97, 122, 45, 45],
     [46, 46, 48, 57, 65, 90, 95, 95],
     [97, 122, 45, 45, 46, 46, 48, 57],
     [65, 90, 95, 95, 97, 122, 45, 45],
     [46, 46, 48, 52, 53, 53, 54, 57],
     [65, 90, 95, 95, 97, 122, 45, 45],
     [46, 46, 48, 53, 54, 57, 65, 90],
     [95, 95, 97, 122, 45, 45, 46, 46],
     [48, 57, 65, 90, 95, 95, 97, 122],
     [45, 45, 46, 46, 48, 57, 65, 90],
     [95, 95, 97, 122, 45, 45, 46, 46],
     [48, 52, 53, 53, 54, 57, 65, 90],
     [95, 95, 97, 122, 45, 45, 46, 46],
     [48, 53, 54, 57, 65, 90, 95, 95],
     [97, 122, 45, 45, 46, 46, 48, 57],
     [65, 90, 95, 95, 97, 122, 45, 45],
     [46, 46, 48, 57, 65, 90, 95, 95],
     [97, 122, 45, 45, 46, 46, 48, 52],
     [53, 53, 54, 57, 65, 90, 95, 95],
     [97, 122, 45, 45, 46, 46, 48, 53],
     [54, 57, 65, 90, 95, 95, 97, 122],
     [48, 57, 58, 58, 65, 65, 66, 66],
     [67, 67, 68, 68, 69, 69, 70, 70],
     [97, 97, 98, 98, 99, 99, 100, 100],
     [101, 101, 102, 102, 48, 57, 58, 58],
     [65, 65, 66, 66, 67, 67, 68, 68],
     [69, 69, 70, 70, 97, 97, 98, 98],
     [99, 99, 100, 100, 101, 101, 102, 102],
     [48, 57, 58, 58, 65, 65, 66, 66],
     [67, 67, 68, 68, 69, 69, 70, 70],
     [97, 97, 98, 98, 99, 99, 100, 100],
     [101, 101, 102, 102, 48, 57, 58, 58],
     [65, 65, 66, 66, 67, 67, 68, 68],
     [69, 69, 70, 70, 97, 97, 98, 98],
     [99, 99, 100, 100, 101, 101, 102, 102],
     [58, 58, 48, 57, 58, 58, 65, 65],
     [66, 66, 67, 67, 68, 68, 69, 69],
     [70, 70, 97, 97, 98, 98, 99, 99],
     [100, 100, 101, 101, 102, 102, 48, 57],
     [58, 58, 65, 65, 66, 66, 67, 67],
     [68, 68, 69, 69, 70, 70, 97, 97],
     [98, 98, 99, 99, 100, 100, 101, 101],
     [102, 102, 48, 57, 58, 58, 65, 65],
     [66, 66, 67, 67, 68, 68, 69, 69],
     [70, 70, 97, 97, 98, 98, 99, 99],
     [100, 100, 101, 101, 102, 102, 48, 57],
     [58, 58, 65, 65, 66, 66, 67, 67],
     [68, 68, 69, 69, 70, 70, 97, 97],
     [98, 98, 99, 99, 100, 100, 101, 101],
     [102, 102, 58, 58, 48, 57, 58, 58],
     [65, 65, 66, 66, 67, 67, 68, 68],
     [69, 69, 70, 70, 97, 97, 98, 98],
     [99, 99, 100, 100, 101, 101, 102, 102],
     [48, 57, 58, 58, 65, 65, 66, 66],
     [67, 67, 68, 68, 69, 69, 70, 70],
     [97, 97, 98, 98, 99, 99, 100, 100],
     [101, 101, 102, 102, 48, 57, 58, 58],
     [65, 65, 66, 66, 67, 67, 68, 68],
     [69, 69, 70, 70, 97, 97, 98, 98],
     [99, 99, 100, 100, 101, 101, 102, 102],
     [48, 57, 58, 58, 65, 65, 66, 66],
     [67, 67, 68, 68, 69, 69, 70, 70],
     [97, 97, 98, 98, 99, 99, 100, 100],
     [101, 101, 102, 102, 58, 58, 48, 57],
     [58, 58, 65, 65, 66, 66, 67, 67],
     [68, 68, 69, 69, 70, 70, 97, 97],
     [98, 98, 99, 99, 100, 100, 101, 101],
     [102, 102, 48, 57, 58, 58, 65, 65],
     [66, 66, 67, 67, 68, 68, 69, 69],
     [70, 70, 97, 97, 98, 98, 99, 99],
     [100, 100, 101, 101, 102, 102, 48, 57],
     [58, 58, 65, 65, 66, 66, 67, 67],
     [68, 68, 69, 69, 70, 70, 97, 97],
     [98, 98, 99, 99, 100, 100, 101, 101]]"

definition sup_cond_keys_46 :: "int list list" where
  "sup_cond_keys_46 =
    [[102, 102, 48, 57, 58, 58, 65, 65],
     [66, 66, 67, 67, 68, 68, 69, 69],
     [70, 70, 97, 97, 98, 98, 99, 99],
     [100, 100, 101, 101, 102, 102, 58, 58],
     [48, 57, 58, 58, 65, 65, 66, 66],
     [67, 67, 68, 68, 69, 69, 70, 70],
     [97, 97, 98, 98, 99, 99, 100, 100],
     [101, 101, 102, 102, 48, 57, 58, 58],
     [65, 65, 66, 66, 67, 67, 68, 68],
     [69, 69, 70, 70, 97, 97, 98, 98],
     [99, 99, 100, 100, 101, 101, 102, 102],
     [48, 57, 58, 58, 65, 65, 66, 66],
     [67, 67, 68, 68, 69, 69, 70, 70],
     [97, 97, 98, 98, 99, 99, 100, 100],
     [101, 101, 102, 102, 48, 57, 58, 58],
     [65, 65, 66, 66, 67, 67, 68, 68],
     [69, 69, 70, 70, 97, 97, 98, 98],
     [99, 99, 100, 100, 101, 101, 102, 102],
     [58, 58, 48, 57, 58, 58, 65, 65],
     [66, 66, 67, 67, 68, 68, 69, 69],
     [70, 70, 97, 97, 98, 98, 99, 99],
     [100, 100, 101, 101, 102, 102, 48, 57],
     [58, 58, 65, 65, 66, 66, 67, 67],
     [68, 68, 69, 69, 70, 70, 97, 97],
     [98, 98, 99, 99, 100, 100, 101, 101],
     [102, 102, 48, 57, 58, 58, 65, 65],
     [66, 66, 67, 67, 68, 68, 69, 69],
     [70, 70, 97, 97, 98, 98, 99, 99],
     [100, 100, 101, 101, 102, 102, 48, 57],
     [58, 58, 65, 65, 66, 66, 67, 67],
     [68, 68, 69, 69, 70, 70, 97, 97],
     [98, 98, 99, 99, 100, 100, 101, 101],
     [102, 102, 58, 58, 48, 48, 49, 49],
     [50, 50, 51, 57, 58, 58, 65, 65],
     [66, 66, 67, 67, 68, 68, 69, 69],
     [70, 70, 97, 97, 98, 98, 99, 99],
     [100, 100, 101, 101, 102, 102, 46, 46],
     [48, 57, 58, 58, 65, 65, 66, 66],
     [67, 67, 68, 68, 69, 69, 70, 70],
     [97, 97, 98, 98, 99, 99, 100, 100],
     [101, 101, 102, 102, 48, 48, 49, 49],
     [50, 50, 51, 57, 46, 46, 48, 48],
     [49, 49, 50, 50, 51, 57, 46, 46],
     [48, 48, 49, 49, 50, 50, 51, 57],
     [93, 93, 9, 9, 13, 13, 32, 32],
     [58, 58, 59, 59, 48, 57, 93, 93],
     [48, 57, 93, 93, 48, 52, 53, 53],
     [54, 57, 93, 93, 48, 53, 93, 93],
     [46, 46, 48, 57, 46, 46, 48, 57],
     [46, 46, 48, 52, 53, 53, 54, 57],
     [46, 46, 48, 53, 46, 46, 48, 57],
     [46, 46, 48, 57, 46, 46, 48, 52],
     [53, 53, 54, 57, 46, 46, 48, 53],
     [48, 57, 58, 58, 65, 65, 66, 66],
     [67, 67, 68, 68, 69, 69, 70, 70],
     [97, 97, 98, 98, 99, 99, 100, 100],
     [101, 101, 102, 102, 48, 57, 58, 58],
     [65, 65, 66, 66, 67, 67, 68, 68],
     [69, 69, 70, 70, 97, 97, 98, 98],
     [99, 99, 100, 100, 101, 101, 102, 102],
     [58, 58, 48, 57, 58, 58, 65, 65],
     [66, 66, 67, 67, 68, 68, 69, 69],
     [70, 70, 97, 97, 98, 98, 99, 99],
     [100, 100, 101, 101, 102, 102, 48, 57],
     [65, 65, 66, 66, 67, 67, 68, 68],
     [69, 69, 70, 70, 93, 93, 97, 97],
     [98, 98, 99, 99, 100, 100, 101, 101],
     [102, 102, 48, 57, 65, 65, 66, 66],
     [67, 67, 68, 68, 69, 69, 70, 70],
     [93, 93, 97, 97, 98, 98, 99, 99],
     [100, 100, 101, 101, 102, 102, 48, 57],
     [65, 65, 66, 66, 67, 67, 68, 68],
     [69, 69, 70, 70, 93, 93, 97, 97],
     [98, 98, 99, 99, 100, 100, 101, 101],
     [102, 102, 46, 46, 48, 57, 58, 58],
     [65, 65, 66, 66, 67, 67, 68, 68],
     [69, 69, 70, 70, 97, 97, 98, 98],
     [99, 99, 100, 100, 101, 101, 102, 102],
     [46, 46, 48, 57, 58, 58, 65, 65],
     [66, 66, 67, 67, 68, 68, 69, 69],
     [70, 70, 97, 97, 98, 98, 99, 99],
     [100, 100, 101, 101, 102, 102, 46, 46],
     [48, 57, 58, 58, 65, 65, 66, 66],
     [67, 67, 68, 68, 69, 69, 70, 70],
     [97, 97, 98, 98, 99, 99, 100, 100],
     [101, 101, 102, 102, 46, 46, 48, 52],
     [53, 53, 54, 57, 58, 58, 65, 65],
     [66, 66, 67, 67, 68, 68, 69, 69],
     [70, 70, 97, 97, 98, 98, 99, 99],
     [100, 100, 101, 101, 102, 102, 46, 46],
     [48, 53, 54, 57, 58, 58, 65, 65],
     [66, 66, 67, 67, 68, 68, 69, 69],
     [70, 70, 97, 97, 98, 98, 99, 99],
     [100, 100, 101, 101, 102, 102, 46, 46],
     [48, 57, 58, 58, 65, 65, 66, 66],
     [67, 67, 68, 68, 69, 69, 70, 70],
     [97, 97, 98, 98, 99, 99, 100, 100],
     [101, 101, 102, 102, 46, 46, 48, 57],
     [58, 58, 65, 65, 66, 66, 67, 67],
     [68, 68, 69, 69, 70, 70, 97, 97],
     [98, 98, 99, 99, 100, 100, 101, 101],
     [102, 102, 48, 57, 65, 65, 66, 66],
     [67, 67, 68, 68, 69, 69, 70, 70],
     [93, 93, 97, 97, 98, 98, 99, 99],
     [100, 100, 101, 101, 102, 102, 48, 57],
     [58, 58, 65, 65, 66, 66, 67, 67],
     [68, 68, 69, 69, 70, 70, 97, 97],
     [98, 98, 99, 99, 100, 100, 101, 101],
     [102, 102, 48, 48, 49, 49, 50, 50],
     [51, 57, 65, 65, 66, 66, 67, 67],
     [68, 68, 69, 69, 70, 70, 93, 93],
     [97, 97, 98, 98, 99, 99, 100, 100],
     [101, 101, 102, 102, 46, 46, 48, 57],
     [58, 58, 65, 65, 66, 66, 67, 67],
     [68, 68, 69, 69, 70, 70, 93, 93],
     [97, 97, 98, 98, 99, 99, 100, 100],
     [101, 101, 102, 102, 48, 57, 58, 58],
     [65, 65, 66, 66, 67, 67, 68, 68],
     [69, 69, 70, 70, 93, 93, 97, 97],
     [98, 98, 99, 99, 100, 100, 101, 101],
     [102, 102, 48, 57, 58, 58, 65, 65],
     [66, 66, 67, 67, 68, 68, 69, 69],
     [70, 70, 93, 93, 97, 97, 98, 98],
     [99, 99, 100, 100, 101, 101, 102, 102],
     [58, 58, 93, 93, 48, 57, 65, 65],
     [66, 66, 67, 67, 68, 68, 69, 69],
     [70, 70, 97, 97, 98, 98, 99, 99],
     [100, 100, 101, 101, 102, 102, 46, 46],
     [48, 57, 58, 58, 65, 65, 66, 66],
     [67, 67, 68, 68, 69, 69, 70, 70],
     [93, 93, 97, 97, 98, 98, 99, 99],
     [100, 100, 101, 101, 102, 102, 46, 46],
     [48, 57, 58, 58, 65, 65, 66, 66],
     [67, 67, 68, 68, 69, 69, 70, 70],
     [93, 93, 97, 97, 98, 98, 99, 99],
     [100, 100, 101, 101, 102, 102, 46, 46],
     [48, 57, 58, 58, 65, 65, 66, 66],
     [67, 67, 68, 68, 69, 69, 70, 70],
     [93, 93, 97, 97, 98, 98, 99, 99],
     [100, 100, 101, 101, 102, 102, 46, 46],
     [48, 52, 53, 53, 54, 57, 58, 58],
     [65, 65, 66, 66, 67, 67, 68, 68],
     [69, 69, 70, 70, 93, 93, 97, 97],
     [98, 98, 99, 99, 100, 100, 101, 101],
     [102, 102, 46, 46, 48, 53, 54, 57],
     [58, 58, 65, 65, 66, 66, 67, 67],
     [68, 68, 69, 69, 70, 70, 93, 93],
     [97, 97, 98, 98, 99, 99, 100, 100],
     [101, 101, 102, 102, 46, 46, 48, 57],
     [58, 58, 65, 65, 66, 66, 67, 67]]"

definition sup_cond_keys_47 :: "int list list" where
  "sup_cond_keys_47 =
    [[68, 68, 69, 69, 70, 70, 93, 93],
     [97, 97, 98, 98, 99, 99, 100, 100],
     [101, 101, 102, 102, 46, 46, 48, 57],
     [58, 58, 65, 65, 66, 66, 67, 67],
     [68, 68, 69, 69, 70, 70, 93, 93],
     [97, 97, 98, 98, 99, 99, 100, 100],
     [101, 101, 102, 102, 48, 57, 58, 58],
     [65, 65, 66, 66, 67, 67, 68, 68],
     [69, 69, 70, 70, 93, 93, 97, 97],
     [98, 98, 99, 99, 100, 100, 101, 101],
     [102, 102, 48, 48, 49, 49, 50, 50],
     [51, 57, 65, 65, 66, 66, 67, 67],
     [68, 68, 69, 69, 70, 70, 93, 93],
     [97, 97, 98, 98, 99, 99, 100, 100],
     [101, 101, 102, 102, 46, 46, 48, 57],
     [58, 58, 65, 65, 66, 66, 67, 67],
     [68, 68, 69, 69, 70, 70, 93, 93],
     [97, 97, 98, 98, 99, 99, 100, 100],
     [101, 101, 102, 102, 48, 57, 58, 58],
     [65, 65, 66, 66, 67, 67, 68, 68],
     [69, 69, 70, 70, 93, 93, 97, 97],
     [98, 98, 99, 99, 100, 100, 101, 101],
     [102, 102, 48, 57, 58, 58, 65, 65],
     [66, 66, 67, 67, 68, 68, 69, 69],
     [70, 70, 93, 93, 97, 97, 98, 98],
     [99, 99, 100, 100, 101, 101, 102, 102],
     [58, 58, 93, 93, 48, 48, 49, 49],
     [50, 50, 51, 57, 65, 65, 66, 66],
     [67, 67, 68, 68, 69, 69, 70, 70],
     [97, 97, 98, 98, 99, 99, 100, 100],
     [101, 101, 102, 102, 46, 46, 48, 57],
     [58, 58, 65, 65, 66, 66, 67, 67],
     [68, 68, 69, 69, 70, 70, 93, 93],
     [97, 97, 98, 98, 99, 99, 100, 100],
     [101, 101, 102, 102, 46, 46, 48, 57],
     [58, 58, 65, 65, 66, 66, 67, 67],
     [68, 68, 69, 69, 70, 70, 93, 93],
     [97, 97, 98, 98, 99, 99, 100, 100],
     [101, 101, 102, 102, 46, 46, 48, 57],
     [58, 58, 65, 65, 66, 66, 67, 67],
     [68, 68, 69, 69, 70, 70, 93, 93],
     [97, 97, 98, 98, 99, 99, 100, 100],
     [101, 101, 102, 102, 46, 46, 48, 52],
     [53, 53, 54, 57, 58, 58, 65, 65],
     [66, 66, 67, 67, 68, 68, 69, 69],
     [70, 70, 93, 93, 97, 97, 98, 98],
     [99, 99, 100, 100, 101, 101, 102, 102],
     [46, 46, 48, 53, 54, 57, 58, 58],
     [65, 65, 66, 66, 67, 67, 68, 68],
     [69, 69, 70, 70, 93, 93, 97, 97],
     [98, 98, 99, 99, 100, 100, 101, 101],
     [102, 102, 46, 46, 48, 57, 58, 58],
     [65, 65, 66, 66, 67, 67, 68, 68],
     [69, 69, 70, 70, 93, 93, 97, 97],
     [98, 98, 99, 99, 100, 100, 101, 101],
     [102, 102, 46, 46, 48, 57, 58, 58],
     [65, 65, 66, 66, 67, 67, 68, 68],
     [69, 69, 70, 70, 93, 93, 97, 97],
     [98, 98, 99, 99, 100, 100, 101, 101],
     [102, 102, 48, 57, 58, 58, 65, 65],
     [66, 66, 67, 67, 68, 68, 69, 69],
     [70, 70, 93, 93, 97, 97, 98, 98],
     [99, 99, 100, 100, 101, 101, 102, 102],
     [48, 48, 49, 49, 50, 50, 51, 57],
     [65, 65, 66, 66, 67, 67, 68, 68],
     [69, 69, 70, 70, 93, 93, 97, 97],
     [98, 98, 99, 99, 100, 100, 101, 101],
     [102, 102, 46, 46, 48, 57, 58, 58],
     [65, 65, 66, 66, 67, 67, 68, 68],
     [69, 69, 70, 70, 93, 93, 97, 97],
     [98, 98, 99, 99, 100, 100, 101, 101],
     [102, 102, 48, 57, 58, 58, 65, 65],
     [66, 66, 67, 67, 68, 68, 69, 69],
     [70, 70, 93, 93, 97, 97, 98, 98],
     [99, 99, 100, 100, 101, 101, 102, 102],
     [48, 57, 58, 58, 65, 65, 66, 66],
     [67, 67, 68, 68, 69, 69, 70, 70],
     [93, 93, 97, 97, 98, 98, 99, 99],
     [100, 100, 101, 101, 102, 102, 58, 58],
     [93, 93, 48, 48, 49, 49, 50, 50],
     [51, 57, 65, 65, 66, 66, 67, 67],
     [68, 68, 69, 69, 70, 70, 97, 97],
     [98, 98, 99, 99, 100, 100, 101, 101],
     [102, 102, 46, 46, 48, 57, 58, 58],
     [65, 65, 66, 66, 67, 67, 68, 68],
     [69, 69, 70, 70, 93, 93, 97, 97],
     [98, 98, 99, 99, 100, 100, 101, 101],
     [102, 102, 46, 46, 48, 57, 58, 58],
     [65, 65, 66, 66, 67, 67, 68, 68],
     [69, 69, 70, 70, 93, 93, 97, 97],
     [98, 98, 99, 99, 100, 100, 101, 101],
     [102, 102, 46, 46, 48, 57, 58, 58],
     [65, 65, 66, 66, 67, 67, 68, 68],
     [69, 69, 70, 70, 93, 93, 97, 97],
     [98, 98, 99, 99, 100, 100, 101, 101],
     [102, 102, 46, 46, 48, 52, 53, 53],
     [54, 57, 58, 58, 65, 65, 66, 66],
     [67, 67, 68, 68, 69, 69, 70, 70],
     [93, 93, 97, 97, 98, 98, 99, 99],
     [100, 100, 101, 101, 102, 102, 46, 46],
     [48, 53, 54, 57, 58, 58, 65, 65],
     [66, 66, 67, 67, 68, 68, 69, 69],
     [70, 70, 93, 93, 97, 97, 98, 98],
     [99, 99, 100, 100, 101, 101, 102, 102],
     [46, 46, 48, 57, 58, 58, 65, 65],
     [66, 66, 67, 67, 68, 68, 69, 69],
     [70, 70, 93, 93, 97, 97, 98, 98],
     [99, 99, 100, 100, 101, 101, 102, 102],
     [46, 46, 48, 57, 58, 58, 65, 65],
     [66, 66, 67, 67, 68, 68, 69, 69],
     [70, 70, 93, 93, 97, 97, 98, 98],
     [99, 99, 100, 100, 101, 101, 102, 102],
     [48, 57, 58, 58, 65, 65, 66, 66],
     [67, 67, 68, 68, 69, 69, 70, 70],
     [93, 93, 97, 97, 98, 98, 99, 99],
     [100, 100, 101, 101, 102, 102, 48, 48],
     [49, 49, 50, 50, 51, 57, 65, 65],
     [66, 66, 67, 67, 68, 68, 69, 69],
     [70, 70, 93, 93, 97, 97, 98, 98],
     [99, 99, 100, 100, 101, 101, 102, 102],
     [46, 46, 48, 57, 58, 58, 65, 65],
     [66, 66, 67, 67, 68, 68, 69, 69],
     [70, 70, 93, 93, 97, 97, 98, 98],
     [99, 99, 100, 100, 101, 101, 102, 102],
     [48, 57, 58, 58, 65, 65, 66, 66],
     [67, 67, 68, 68, 69, 69, 70, 70],
     [93, 93, 97, 97, 98, 98, 99, 99],
     [100, 100, 101, 101, 102, 102, 48, 57],
     [58, 58, 65, 65, 66, 66, 67, 67],
     [68, 68, 69, 69, 70, 70, 93, 93],
     [97, 97, 98, 98, 99, 99, 100, 100],
     [101, 101, 102, 102, 58, 58, 93, 93],
     [48, 48, 49, 49, 50, 50, 51, 57],
     [65, 65, 66, 66, 67, 67, 68, 68],
     [69, 69, 70, 70, 97, 97, 98, 98],
     [99, 99, 100, 100, 101, 101, 102, 102],
     [46, 46, 48, 57, 58, 58, 65, 65],
     [66, 66, 67, 67, 68, 68, 69, 69],
     [70, 70, 93, 93, 97, 97, 98, 98],
     [99, 99, 100, 100, 101, 101, 102, 102],
     [46, 46, 48, 57, 58, 58, 65, 65],
     [66, 66, 67, 67, 68, 68, 69, 69],
     [70, 70, 93, 93, 97, 97, 98, 98],
     [99, 99, 100, 100, 101, 101, 102, 102],
     [46, 46, 48, 57, 58, 58, 65, 65],
     [66, 66, 67, 67, 68, 68, 69, 69],
     [70, 70, 93, 93, 97, 97, 98, 98],
     [99, 99, 100, 100, 101, 101, 102, 102],
     [46, 46, 48, 52, 53, 53, 54, 57],
     [58, 58, 65, 65, 66, 66, 67, 67]]"

definition sup_cond_keys_48 :: "int list list" where
  "sup_cond_keys_48 =
    [[68, 68, 69, 69, 70, 70, 93, 93],
     [97, 97, 98, 98, 99, 99, 100, 100],
     [101, 101, 102, 102, 46, 46, 48, 53],
     [54, 57, 58, 58, 65, 65, 66, 66],
     [67, 67, 68, 68, 69, 69, 70, 70],
     [93, 93, 97, 97, 98, 98, 99, 99],
     [100, 100, 101, 101, 102, 102, 46, 46],
     [48, 57, 58, 58, 65, 65, 66, 66],
     [67, 67, 68, 68, 69, 69, 70, 70],
     [93, 93, 97, 97, 98, 98, 99, 99],
     [100, 100, 101, 101, 102, 102, 46, 46],
     [48, 57, 58, 58, 65, 65, 66, 66],
     [67, 67, 68, 68, 69, 69, 70, 70],
     [93, 93, 97, 97, 98, 98, 99, 99],
     [100, 100, 101, 101, 102, 102, 48, 57],
     [58, 58, 65, 65, 66, 66, 67, 67],
     [68, 68, 69, 69, 70, 70, 93, 93],
     [97, 97, 98, 98, 99, 99, 100, 100],
     [101, 101, 102, 102, 48, 48, 49, 49],
     [50, 50, 51, 57, 65, 65, 66, 66],
     [67, 67, 68, 68, 69, 69, 70, 70],
     [93, 93, 97, 97, 98, 98, 99, 99],
     [100, 100, 101, 101, 102, 102, 46, 46],
     [48, 57, 58, 58, 65, 65, 66, 66],
     [67, 67, 68, 68, 69, 69, 70, 70],
     [93, 93, 97, 97, 98, 98, 99, 99],
     [100, 100, 101, 101, 102, 102, 48, 57],
     [58, 58, 65, 65, 66, 66, 67, 67],
     [68, 68, 69, 69, 70, 70, 93, 93],
     [97, 97, 98, 98, 99, 99, 100, 100],
     [101, 101, 102, 102, 48, 57, 58, 58],
     [65, 65, 66, 66, 67, 67, 68, 68],
     [69, 69, 70, 70, 93, 93, 97, 97],
     [98, 98, 99, 99, 100, 100, 101, 101],
     [102, 102, 58, 58, 93, 93, 48, 48],
     [49, 49, 50, 50, 51, 57, 65, 65],
     [66, 66, 67, 67, 68, 68, 69, 69],
     [70, 70, 97, 97, 98, 98, 99, 99],
     [100, 100, 101, 101, 102, 102, 46, 46],
     [48, 57, 58, 58, 65, 65, 66, 66],
     [67, 67, 68, 68, 69, 69, 70, 70],
     [93, 93, 97, 97, 98, 98, 99, 99],
     [100, 100, 101, 101, 102, 102, 46, 46],
     [48, 57, 58, 58, 65, 65, 66, 66],
     [67, 67, 68, 68, 69, 69, 70, 70],
     [93, 93, 97, 97, 98, 98, 99, 99],
     [100, 100, 101, 101, 102, 102, 46, 46],
     [48, 57, 58, 58, 65, 65, 66, 66],
     [67, 67, 68, 68, 69, 69, 70, 70],
     [93, 93, 97, 97, 98, 98, 99, 99],
     [100, 100, 101, 101, 102, 102, 46, 46],
     [48, 52, 53, 53, 54, 57, 58, 58],
     [65, 65, 66, 66, 67, 67, 68, 68],
     [69, 69, 70, 70, 93, 93, 97, 97],
     [98, 98, 99, 99, 100, 100, 101, 101],
     [102, 102, 46, 46, 48, 53, 54, 57],
     [58, 58, 65, 65, 66, 66, 67, 67],
     [68, 68, 69, 69, 70, 70, 93, 93],
     [97, 97, 98, 98, 99, 99, 100, 100],
     [101, 101, 102, 102, 46, 46, 48, 57],
     [58, 58, 65, 65, 66, 66, 67, 67],
     [68, 68, 69, 69, 70, 70, 93, 93],
     [97, 97, 98, 98, 99, 99, 100, 100],
     [101, 101, 102, 102, 46, 46, 48, 57],
     [58, 58, 65, 65, 66, 66, 67, 67],
     [68, 68, 69, 69, 70, 70, 93, 93],
     [97, 97, 98, 98, 99, 99, 100, 100],
     [101, 101, 102, 102, 48, 57, 58, 58],
     [65, 65, 66, 66, 67, 67, 68, 68],
     [69, 69, 70, 70, 93, 93, 97, 97],
     [98, 98, 99, 99, 100, 100, 101, 101],
     [102, 102, 58, 58, 48, 48, 49, 49],
     [50, 50, 51, 57, 65, 65, 66, 66],
     [67, 67, 68, 68, 69, 69, 70, 70],
     [93, 93, 97, 97, 98, 98, 99, 99],
     [100, 100, 101, 101, 102, 102, 46, 46],
     [48, 57, 58, 58, 65, 65, 66, 66],
     [67, 67, 68, 68, 69, 69, 70, 70],
     [93, 93, 97, 97, 98, 98, 99, 99],
     [100, 100, 101, 101, 102, 102, 48, 57],
     [58, 58, 65, 65, 66, 66, 67, 67],
     [68, 68, 69, 69, 70, 70, 93, 93],
     [97, 97, 98, 98, 99, 99, 100, 100],
     [101, 101, 102, 102, 48, 57, 58, 58],
     [65, 65, 66, 66, 67, 67, 68, 68],
     [69, 69, 70, 70, 93, 93, 97, 97],
     [98, 98, 99, 99, 100, 100, 101, 101],
     [102, 102, 58, 58, 93, 93, 48, 48],
     [49, 49, 50, 50, 51, 57, 65, 65],
     [66, 66, 67, 67, 68, 68, 69, 69],
     [70, 70, 97, 97, 98, 98, 99, 99],
     [100, 100, 101, 101, 102, 102, 46, 46],
     [48, 57, 58, 58, 65, 65, 66, 66],
     [67, 67, 68, 68, 69, 69, 70, 70],
     [93, 93, 97, 97, 98, 98, 99, 99],
     [100, 100, 101, 101, 102, 102, 46, 46],
     [48, 57, 58, 58, 65, 65, 66, 66],
     [67, 67, 68, 68, 69, 69, 70, 70],
     [93, 93, 97, 97, 98, 98, 99, 99],
     [100, 100, 101, 101, 102, 102, 46, 46],
     [48, 57, 58, 58, 65, 65, 66, 66],
     [67, 67, 68, 68, 69, 69, 70, 70],
     [93, 93, 97, 97, 98, 98, 99, 99],
     [100, 100, 101, 101, 102, 102, 46, 46],
     [48, 52, 53, 53, 54, 57, 58, 58],
     [65, 65, 66, 66, 67, 67, 68, 68],
     [69, 69, 70, 70, 93, 93, 97, 97],
     [98, 98, 99, 99, 100, 100, 101, 101],
     [102, 102, 46, 46, 48, 53, 54, 57],
     [58, 58, 65, 65, 66, 66, 67, 67],
     [68, 68, 69, 69, 70, 70, 93, 93],
     [97, 97, 98, 98, 99, 99, 100, 100],
     [101, 101, 102, 102, 46, 46, 48, 57],
     [58, 58, 65, 65, 66, 66, 67, 67],
     [68, 68, 69, 69, 70, 70, 93, 93],
     [97, 97, 98, 98, 99, 99, 100, 100],
     [101, 101, 102, 102, 46, 46, 48, 57],
     [58, 58, 65, 65, 66, 66, 67, 67],
     [68, 68, 69, 69, 70, 70, 93, 93],
     [97, 97, 98, 98, 99, 99, 100, 100],
     [101, 101, 102, 102, 48, 57, 58, 58],
     [65, 65, 66, 66, 67, 67, 68, 68],
     [69, 69, 70, 70, 93, 93, 97, 97],
     [98, 98, 99, 99, 100, 100, 101, 101],
     [102, 102, 48, 57, 65, 65, 66, 66],
     [67, 67, 68, 68, 69, 69, 70, 70],
     [97, 97, 98, 98, 99, 99, 100, 100],
     [101, 101, 102, 102, 48, 57, 65, 65],
     [66, 66, 67, 67, 68, 68, 69, 69],
     [70, 70, 97, 97, 98, 98, 99, 99],
     [100, 100, 101, 101, 102, 102, 9, 9],
     [13, 13, 32, 32, 33, 33, 36, 36],
     [37, 37, 38, 38, 39, 39, 40, 40],
     [41, 41, 42, 42, 43, 43, 45, 45],
     [46, 46, 47, 47, 48, 57, 58, 58],
     [59, 59, 61, 61, 64, 64, 65, 90],
     [95, 95, 97, 122, 126, 126, 48, 57],
     [65, 65, 66, 66, 67, 67, 68, 68],
     [69, 69, 70, 70, 97, 97, 98, 98],
     [99, 99, 100, 100, 101, 101, 102, 102],
     [48, 57, 65, 65, 66, 66, 67, 67],
     [68, 68, 69, 69, 70, 70, 97, 97],
     [98, 98, 99, 99, 100, 100, 101, 101],
     [102, 102, 9, 9, 13, 13, 32, 32],
     [33, 33, 36, 36, 37, 37, 38, 38],
     [39, 39, 40, 40, 41, 41, 42, 42],
     [43, 43, 45, 45, 46, 46, 47, 47],
     [48, 57, 58, 58, 59, 59, 61, 61],
     [64, 64, 65, 90, 95, 95, 97, 122],
     [126, 126, 48, 57, 65, 65, 66, 66]]"

definition sup_cond_keys_49 :: "int list list" where
  "sup_cond_keys_49 =
    [[67, 67, 68, 68, 69, 69, 70, 70],
     [97, 97, 98, 98, 99, 99, 100, 100],
     [101, 101, 102, 102, 48, 57, 65, 65],
     [66, 66, 67, 67, 68, 68, 69, 69],
     [70, 70, 97, 97, 98, 98, 99, 99],
     [100, 100, 101, 101, 102, 102, 9, 9],
     [13, 13, 32, 32, 33, 33, 36, 36],
     [37, 37, 38, 38, 39, 39, 40, 40],
     [41, 41, 42, 42, 43, 43, 45, 45],
     [46, 46, 47, 47, 48, 48, 49, 49],
     [50, 50, 51, 57, 58, 58, 59, 59],
     [61, 61, 64, 64, 65, 90, 91, 91],
     [95, 95, 97, 122, 126, 126, 9, 9],
     [13, 13, 32, 32, 33, 33, 35, 35],
     [36, 36, 37, 37, 38, 38, 39, 39],
     [40, 40, 41, 41, 42, 42, 43, 43],
     [45, 45, 46, 46, 47, 47, 48, 57],
     [58, 58, 59, 59, 61, 61, 64, 64],
     [65, 90, 95, 95, 97, 122, 126, 126],
     [9, 9, 13, 13, 32, 32, 33, 33],
     [35, 35, 36, 36, 37, 37, 38, 38],
     [39, 39, 40, 40, 41, 41, 42, 42],
     [43, 43, 45, 45, 46, 46, 47, 47],
     [48, 48, 49, 49, 50, 50, 51, 57],
     [58, 58, 59, 59, 61, 61, 64, 64],
     [65, 90, 91, 91, 95, 95, 97, 122],
     [126, 126, 9, 9, 13, 13, 32, 32],
     [33, 33, 35, 35, 36, 36, 37, 37],
     [38, 38, 39, 39, 40, 40, 41, 41],
     [42, 42, 43, 43, 45, 45, 46, 46],
     [47, 47, 48, 57, 58, 58, 59, 59],
     [61, 61, 64, 64, 65, 90, 95, 95],
     [97, 122, 126, 126, 33, 33, 35, 35],
     [36, 36, 37, 37, 38, 38, 39, 39],
     [40, 40, 41, 41, 42, 42, 43, 43],
     [45, 45, 46, 46, 47, 47, 48, 57],
     [58, 58, 61, 61, 64, 64, 65, 90],
     [95, 95, 97, 122, 126, 126, 48, 57],
     [65, 65, 66, 66, 67, 67, 68, 68],
     [69, 69, 70, 70, 97, 97, 98, 98],
     [99, 99, 100, 100, 101, 101, 102, 102],
     [48, 57, 65, 65, 66, 66, 67, 67],
     [68, 68, 69, 69, 70, 70, 97, 97],
     [98, 98, 99, 99, 100, 100, 101, 101],
     [102, 102, 33, 33, 36, 36, 37, 37],
     [38, 38, 39, 39, 40, 40, 41, 41],
     [42, 42, 43, 43, 45, 45, 46, 46],
     [48, 57, 61, 61, 64, 64, 65, 90],
     [95, 95, 97, 122, 126, 126, 48, 57],
     [65, 65, 66, 66, 67, 67, 68, 68],
     [69, 69, 70, 70, 97, 97, 98, 98],
     [99, 99, 100, 100, 101, 101, 102, 102],
     [48, 57, 65, 65, 66, 66, 67, 67],
     [68, 68, 69, 69, 70, 70, 97, 97],
     [98, 98, 99, 99, 100, 100, 101, 101],
     [102, 102, 48, 48, 49, 49, 50, 50],
     [51, 57, 65, 90, 91, 91, 97, 122],
     [45, 45, 46, 46, 48, 57, 65, 90],
     [95, 95, 97, 122, 45, 45, 48, 57],
     [65, 90, 95, 95, 97, 122, 45, 45],
     [46, 46, 48, 57, 65, 90, 95, 95],
     [97, 122, 48, 57, 65, 90, 97, 122],
     [9, 9, 13, 13, 32, 32, 45, 45],
     [46, 46, 47, 47, 48, 57, 58, 58],
     [59, 59, 65, 90, 95, 95, 97, 122],
     [45, 45, 48, 57, 65, 90, 95, 95],
     [97, 122, 9, 9, 13, 13, 32, 32],
     [47, 47, 48, 57, 58, 58, 59, 59],
     [65, 90, 97, 122, 48, 48, 49, 53],
     [54, 54, 55, 57, 48, 48, 49, 57],
     [48, 48, 49, 57, 49, 57, 9, 9],
     [13, 13, 32, 32, 47, 47, 59, 59],
     [9, 9, 13, 13, 32, 32, 47, 47],
     [48, 57, 59, 59, 9, 9, 13, 13],
     [32, 32, 47, 47, 48, 57, 59, 59],
     [9, 9, 13, 13, 32, 32, 47, 47],
     [48, 57, 59, 59, 9, 9, 13, 13],
     [32, 32, 47, 47, 48, 57, 59, 59],
     [9, 9, 13, 13, 32, 32, 47, 47],
     [48, 52, 53, 53, 54, 57, 59, 59],
     [9, 9, 13, 13, 32, 32, 47, 47],
     [48, 52, 53, 53, 54, 57, 59, 59],
     [9, 9, 13, 13, 32, 32, 47, 47],
     [48, 50, 51, 51, 52, 57, 59, 59],
     [9, 9, 13, 13, 32, 32, 47, 47],
     [48, 53, 59, 59, 48, 48, 49, 49],
     [50, 50, 51, 57, 65, 90, 97, 122],
     [45, 45, 46, 46, 48, 57, 65, 90],
     [95, 95, 97, 122, 48, 48, 49, 49],
     [50, 50, 51, 57, 65, 90, 97, 122],
     [45, 45, 46, 46, 48, 57, 65, 90],
     [95, 95, 97, 122, 48, 48, 49, 49],
     [50, 50, 51, 57, 65, 90, 97, 122],
     [9, 9, 13, 13, 32, 32, 45, 45],
     [46, 46, 47, 47, 48, 57, 58, 58],
     [59, 59, 65, 90, 95, 95, 97, 122],
     [9, 9, 13, 13, 32, 32, 45, 45],
     [46, 46, 47, 47, 48, 57, 58, 58],
     [59, 59, 65, 90, 95, 95, 97, 122],
     [9, 9, 13, 13, 32, 32, 45, 45],
     [46, 46, 47, 47, 48, 57, 58, 58],
     [59, 59, 65, 90, 95, 95, 97, 122],
     [9, 9, 13, 13, 32, 32, 45, 45],
     [46, 46, 47, 47, 48, 52, 53, 53],
     [54, 57, 58, 58, 59, 59, 65, 90],
     [95, 95, 97, 122, 9, 9, 13, 13],
     [32, 32, 45, 45, 46, 46, 47, 47],
     [48, 53, 54, 57, 58, 58, 59, 59],
     [65, 90, 95, 95, 97, 122, 45, 45],
     [46, 46, 48, 57, 65, 90, 95, 95],
     [97, 122, 45, 45, 46, 46, 48, 57],
     [65, 90, 95, 95, 97, 122, 45, 45],
     [46, 46, 48, 52, 53, 53, 54, 57],
     [65, 90, 95, 95, 97, 122, 45, 45],
     [46, 46, 48, 53, 54, 57, 65, 90],
     [95, 95, 97, 122, 45, 45, 46, 46],
     [48, 57, 65, 90, 95, 95, 97, 122],
     [45, 45, 46, 46, 48, 57, 65, 90],
     [95, 95, 97, 122, 45, 45, 46, 46],
     [48, 52, 53, 53, 54, 57, 65, 90],
     [95, 95, 97, 122, 45, 45, 46, 46],
     [48, 53, 54, 57, 65, 90, 95, 95],
     [97, 122, 45, 45, 46, 46, 48, 57],
     [65, 90, 95, 95, 97, 122, 45, 45],
     [46, 46, 48, 57, 65, 90, 95, 95],
     [97, 122, 45, 45, 46, 46, 48, 52],
     [53, 53, 54, 57, 65, 90, 95, 95],
     [97, 122, 45, 45, 46, 46, 48, 53],
     [54, 57, 65, 90, 95, 95, 97, 122],
     [48, 57, 58, 58, 65, 65, 66, 66],
     [67, 67, 68, 68, 69, 69, 70, 70],
     [97, 97, 98, 98, 99, 99, 100, 100],
     [101, 101, 102, 102, 48, 57, 58, 58],
     [65, 65, 66, 66, 67, 67, 68, 68],
     [69, 69, 70, 70, 97, 97, 98, 98],
     [99, 99, 100, 100, 101, 101, 102, 102],
     [48, 57, 58, 58, 65, 65, 66, 66],
     [67, 67, 68, 68, 69, 69, 70, 70],
     [97, 97, 98, 98, 99, 99, 100, 100],
     [101, 101, 102, 102, 48, 57, 58, 58],
     [65, 65, 66, 66, 67, 67, 68, 68],
     [69, 69, 70, 70, 97, 97, 98, 98],
     [99, 99, 100, 100, 101, 101, 102, 102],
     [58, 58, 48, 57, 58, 58, 65, 65],
     [66, 66, 67, 67, 68, 68, 69, 69],
     [70, 70, 97, 97, 98, 98, 99, 99],
     [100, 100, 101, 101, 102, 102, 48, 57],
     [58, 58, 65, 65, 66, 66, 67, 67],
     [68, 68, 69, 69, 70, 70, 97, 97],
     [98, 98, 99, 99, 100, 100, 101, 101]]"

definition sup_cond_keys_50 :: "int list list" where
  "sup_cond_keys_50 =
    [[102, 102, 48, 57, 58, 58, 65, 65],
     [66, 66, 67, 67, 68, 68, 69, 69],
     [70, 70, 97, 97, 98, 98, 99, 99],
     [100, 100, 101, 101, 102, 102, 48, 57],
     [58, 58, 65, 65, 66, 66, 67, 67],
     [68, 68, 69, 69, 70, 70, 97, 97],
     [98, 98, 99, 99, 100, 100, 101, 101],
     [102, 102, 58, 58, 48, 57, 58, 58],
     [65, 65, 66, 66, 67, 67, 68, 68],
     [69, 69, 70, 70, 97, 97, 98, 98],
     [99, 99, 100, 100, 101, 101, 102, 102],
     [48, 57, 58, 58, 65, 65, 66, 66],
     [67, 67, 68, 68, 69, 69, 70, 70],
     [97, 97, 98, 98, 99, 99, 100, 100],
     [101, 101, 102, 102, 48, 57, 58, 58],
     [65, 65, 66, 66, 67, 67, 68, 68],
     [69, 69, 70, 70, 97, 97, 98, 98],
     [99, 99, 100, 100, 101, 101, 102, 102],
     [48, 57, 58, 58, 65, 65, 66, 66],
     [67, 67, 68, 68, 69, 69, 70, 70],
     [97, 97, 98, 98, 99, 99, 100, 100],
     [101, 101, 102, 102, 58, 58, 48, 57],
     [58, 58, 65, 65, 66, 66, 67, 67],
     [68, 68, 69, 69, 70, 70, 97, 97],
     [98, 98, 99, 99, 100, 100, 101, 101],
     [102, 102, 48, 57, 58, 58, 65, 65],
     [66, 66, 67, 67, 68, 68, 69, 69],
     [70, 70, 97, 97, 98, 98, 99, 99],
     [100, 100, 101, 101, 102, 102, 48, 57],
     [58, 58, 65, 65, 66, 66, 67, 67],
     [68, 68, 69, 69, 70, 70, 97, 97],
     [98, 98, 99, 99, 100, 100, 101, 101],
     [102, 102, 48, 57, 58, 58, 65, 65],
     [66, 66, 67, 67, 68, 68, 69, 69],
     [70, 70, 97, 97, 98, 98, 99, 99],
     [100, 100, 101, 101, 102, 102, 58, 58],
     [48, 57, 58, 58, 65, 65, 66, 66],
     [67, 67, 68, 68, 69, 69, 70, 70],
     [97, 97, 98, 98, 99, 99, 100, 100],
     [101, 101, 102, 102, 48, 57, 58, 58],
     [65, 65, 66, 66, 67, 67, 68, 68],
     [69, 69, 70, 70, 97, 97, 98, 98],
     [99, 99, 100, 100, 101, 101, 102, 102],
     [48, 57, 58, 58, 65, 65, 66, 66],
     [67, 67, 68, 68, 69, 69, 70, 70],
     [97, 97, 98, 98, 99, 99, 100, 100],
     [101, 101, 102, 102, 48, 57, 58, 58],
     [65, 65, 66, 66, 67, 67, 68, 68],
     [69, 69, 70, 70, 97, 97, 98, 98],
     [99, 99, 100, 100, 101, 101, 102, 102],
     [58, 58, 48, 57, 58, 58, 65, 65],
     [66, 66, 67, 67, 68, 68, 69, 69],
     [70, 70, 97, 97, 98, 98, 99, 99],
     [100, 100, 101, 101, 102, 102, 48, 57],
     [58, 58, 65, 65, 66, 66, 67, 67],
     [68, 68, 69, 69, 70, 70, 97, 97],
     [98, 98, 99, 99, 100, 100, 101, 101],
     [102, 102, 48, 57, 58, 58, 65, 65],
     [66, 66, 67, 67, 68, 68, 69, 69],
     [70, 70, 97, 97, 98, 98, 99, 99],
     [100, 100, 101, 101, 102, 102, 48, 57],
     [58, 58, 65, 65, 66, 66, 67, 67],
     [68, 68, 69, 69, 70, 70, 97, 97],
     [98, 98, 99, 99, 100, 100, 101, 101],
     [102, 102, 58, 58, 48, 48, 49, 49],
     [50, 50, 51, 57, 58, 58, 65, 65],
     [66, 66, 67, 67, 68, 68, 69, 69],
     [70, 70, 97, 97, 98, 98, 99, 99],
     [100, 100, 101, 101, 102, 102, 46, 46],
     [48, 57, 58, 58, 65, 65, 66, 66],
     [67, 67, 68, 68, 69, 69, 70, 70],
     [97, 97, 98, 98, 99, 99, 100, 100],
     [101, 101, 102, 102, 48, 48, 49, 49],
     [50, 50, 51, 57, 46, 46, 48, 48],
     [49, 49, 50, 50, 51, 57, 46, 46],
     [48, 48, 49, 49, 50, 50, 51, 57],
     [93, 93, 9, 9, 13, 13, 32, 32],
     [47, 47, 58, 58, 59, 59, 48, 57],
     [93, 93, 48, 57, 93, 93, 48, 52],
     [53, 53, 54, 57, 93, 93, 48, 53],
     [93, 93, 46, 46, 48, 57, 46, 46],
     [48, 57, 46, 46, 48, 52, 53, 53],
     [54, 57, 46, 46, 48, 53, 46, 46],
     [48, 57, 46, 46, 48, 57, 46, 46],
     [48, 52, 53, 53, 54, 57, 46, 46],
     [48, 53, 48, 57, 58, 58, 65, 65],
     [66, 66, 67, 67, 68, 68, 69, 69],
     [70, 70, 97, 97, 98, 98, 99, 99],
     [100, 100, 101, 101, 102, 102, 48, 57],
     [58, 58, 65, 65, 66, 66, 67, 67],
     [68, 68, 69, 69, 70, 70, 97, 97],
     [98, 98, 99, 99, 100, 100, 101, 101],
     [102, 102, 58, 58, 48, 57, 58, 58],
     [65, 65, 66, 66, 67, 67, 68, 68],
     [69, 69, 70, 70, 97, 97, 98, 98],
     [99, 99, 100, 100, 101, 101, 102, 102],
     [48, 57, 65, 65, 66, 66, 67, 67],
     [68, 68, 69, 69, 70, 70, 93, 93],
     [97, 97, 98, 98, 99, 99, 100, 100],
     [101, 101, 102, 102, 48, 57, 65, 65],
     [66, 66, 67, 67, 68, 68, 69, 69],
     [70, 70, 93, 93, 97, 97, 98, 98],
     [99, 99, 100, 100, 101, 101, 102, 102],
     [48, 57, 65, 65, 66, 66, 67, 67],
     [68, 68, 69, 69, 70, 70, 93, 93],
     [97, 97, 98, 98, 99, 99, 100, 100],
     [101, 101, 102, 102, 46, 46, 48, 57],
     [58, 58, 65, 65, 66, 66, 67, 67],
     [68, 68, 69, 69, 70, 70, 97, 97],
     [98, 98, 99, 99, 100, 100, 101, 101],
     [102, 102, 46, 46, 48, 57, 58, 58],
     [65, 65, 66, 66, 67, 67, 68, 68],
     [69, 69, 70, 70, 97, 97, 98, 98],
     [99, 99, 100, 100, 101, 101, 102, 102],
     [46, 46, 48, 57, 58, 58, 65, 65],
     [66, 66, 67, 67, 68, 68, 69, 69],
     [70, 70, 97, 97, 98, 98, 99, 99],
     [100, 100, 101, 101, 102, 102, 46, 46],
     [48, 52, 53, 53, 54, 57, 58, 58],
     [65, 65, 66, 66, 67, 67, 68, 68],
     [69, 69, 70, 70, 97, 97, 98, 98],
     [99, 99, 100, 100, 101, 101, 102, 102],
     [46, 46, 48, 53, 54, 57, 58, 58],
     [65, 65, 66, 66, 67, 67, 68, 68],
     [69, 69, 70, 70, 97, 97, 98, 98],
     [99, 99, 100, 100, 101, 101, 102, 102],
     [46, 46, 48, 57, 58, 58, 65, 65],
     [66, 66, 67, 67, 68, 68, 69, 69],
     [70, 70, 97, 97, 98, 98, 99, 99],
     [100, 100, 101, 101, 102, 102, 46, 46],
     [48, 57, 58, 58, 65, 65, 66, 66],
     [67, 67, 68, 68, 69, 69, 70, 70],
     [97, 97, 98, 98, 99, 99, 100, 100],
     [101, 101, 102, 102, 48, 57, 65, 65],
     [66, 66, 67, 67, 68, 68, 69, 69],
     [70, 70, 93, 93, 97, 97, 98, 98],
     [99, 99, 100, 100, 101, 101, 102, 102],
     [48, 57, 58, 58, 65, 65, 66, 66],
     [67, 67, 68, 68, 69, 69, 70, 70],
     [97, 97, 98, 98, 99, 99, 100, 100],
     [101, 101, 102, 102, 48, 48, 49, 49],
     [50, 50, 51, 57, 65, 65, 66, 66],
     [67, 67, 68, 68, 69, 69, 70, 70],
     [93, 93, 97, 97, 98, 98, 99, 99],
     [100, 100, 101, 101, 102, 102, 46, 46],
     [48, 57, 58, 58, 65, 65, 66, 66],
     [67, 67, 68, 68, 69, 69, 70, 70],
     [93, 93, 97, 97, 98, 98, 99, 99],
     [100, 100, 101, 101, 102, 102, 48, 57],
     [58, 58, 65, 65, 66, 66, 67, 67]]"

definition sup_cond_keys_51 :: "int list list" where
  "sup_cond_keys_51 =
    [[68, 68, 69, 69, 70, 70, 93, 93],
     [97, 97, 98, 98, 99, 99, 100, 100],
     [101, 101, 102, 102, 48, 57, 58, 58],
     [65, 65, 66, 66, 67, 67, 68, 68],
     [69, 69, 70, 70, 93, 93, 97, 97],
     [98, 98, 99, 99, 100, 100, 101, 101],
     [102, 102, 58, 58, 93, 93, 48, 57],
     [65, 65, 66, 66, 67, 67, 68, 68],
     [69, 69, 70, 70, 97, 97, 98, 98],
     [99, 99, 100, 100, 101, 101, 102, 102],
     [46, 46, 48, 57, 58, 58, 65, 65],
     [66, 66, 67, 67, 68, 68, 69, 69],
     [70, 70, 93, 93, 97, 97, 98, 98],
     [99, 99, 100, 100, 101, 101, 102, 102],
     [46, 46, 48, 57, 58, 58, 65, 65],
     [66, 66, 67, 67, 68, 68, 69, 69],
     [70, 70, 93, 93, 97, 97, 98, 98],
     [99, 99, 100, 100, 101, 101, 102, 102],
     [46, 46, 48, 57, 58, 58, 65, 65],
     [66, 66, 67, 67, 68, 68, 69, 69],
     [70, 70, 93, 93, 97, 97, 98, 98],
     [99, 99, 100, 100, 101, 101, 102, 102],
     [46, 46, 48, 52, 53, 53, 54, 57],
     [58, 58, 65, 65, 66, 66, 67, 67],
     [68, 68, 69, 69, 70, 70, 93, 93],
     [97, 97, 98, 98, 99, 99, 100, 100],
     [101, 101, 102, 102, 46, 46, 48, 53],
     [54, 57, 58, 58, 65, 65, 66, 66],
     [67, 67, 68, 68, 69, 69, 70, 70],
     [93, 93, 97, 97, 98, 98, 99, 99],
     [100, 100, 101, 101, 102, 102, 46, 46],
     [48, 57, 58, 58, 65, 65, 66, 66],
     [67, 67, 68, 68, 69, 69, 70, 70],
     [93, 93, 97, 97, 98, 98, 99, 99],
     [100, 100, 101, 101, 102, 102, 46, 46],
     [48, 57, 58, 58, 65, 65, 66, 66],
     [67, 67, 68, 68, 69, 69, 70, 70],
     [93, 93, 97, 97, 98, 98, 99, 99],
     [100, 100, 101, 101, 102, 102, 48, 57],
     [58, 58, 65, 65, 66, 66, 67, 67],
     [68, 68, 69, 69, 70, 70, 93, 93],
     [97, 97, 98, 98, 99, 99, 100, 100],
     [101, 101, 102, 102, 48, 48, 49, 49],
     [50, 50, 51, 57, 65, 65, 66, 66],
     [67, 67, 68, 68, 69, 69, 70, 70],
     [93, 93, 97, 97, 98, 98, 99, 99],
     [100, 100, 101, 101, 102, 102, 46, 46],
     [48, 57, 58, 58, 65, 65, 66, 66],
     [67, 67, 68, 68, 69, 69, 70, 70],
     [93, 93, 97, 97, 98, 98, 99, 99],
     [100, 100, 101, 101, 102, 102, 48, 57],
     [58, 58, 65, 65, 66, 66, 67, 67],
     [68, 68, 69, 69, 70, 70, 93, 93],
     [97, 97, 98, 98, 99, 99, 100, 100],
     [101, 101, 102, 102, 48, 57, 58, 58],
     [65, 65, 66, 66, 67, 67, 68, 68],
     [69, 69, 70, 70, 93, 93, 97, 97],
     [98, 98, 99, 99, 100, 100, 101, 101],
     [102, 102, 58, 58, 93, 93, 48, 48],
     [49, 49, 50, 50, 51, 57, 65, 65],
     [66, 66, 67, 67, 68, 68, 69, 69],
     [70, 70, 97, 97, 98, 98, 99, 99],
     [100, 100, 101, 101, 102, 102, 46, 46],
     [48, 57, 58, 58, 65, 65, 66, 66],
     [67, 67, 68, 68, 69, 69, 70, 70],
     [93, 93, 97, 97, 98, 98, 99, 99],
     [100, 100, 101, 101, 102, 102, 46, 46],
     [48, 57, 58, 58, 65, 65, 66, 66],
     [67, 67, 68, 68, 69, 69, 70, 70],
     [93, 93, 97, 97, 98, 98, 99, 99],
     [100, 100, 101, 101, 102, 102, 46, 46],
     [48, 57, 58, 58, 65, 65, 66, 66],
     [67, 67, 68, 68, 69, 69, 70, 70],
     [93, 93, 97, 97, 98, 98, 99, 99],
     [100, 100, 101, 101, 102, 102, 46, 46],
     [48, 52, 53, 53, 54, 57, 58, 58],
     [65, 65, 66, 66, 67, 67, 68, 68],
     [69, 69, 70, 70, 93, 93, 97, 97],
     [98, 98, 99, 99, 100, 100, 101, 101],
     [102, 102, 46, 46, 48, 53, 54, 57],
     [58, 58, 65, 65, 66, 66, 67, 67],
     [68, 68, 69, 69, 70, 70, 93, 93],
     [97, 97, 98, 98, 99, 99, 100, 100],
     [101, 101, 102, 102, 46, 46, 48, 57],
     [58, 58, 65, 65, 66, 66, 67, 67],
     [68, 68, 69, 69, 70, 70, 93, 93],
     [97, 97, 98, 98, 99, 99, 100, 100],
     [101, 101, 102, 102, 46, 46, 48, 57],
     [58, 58, 65, 65, 66, 66, 67, 67],
     [68, 68, 69, 69, 70, 70, 93, 93],
     [97, 97, 98, 98, 99, 99, 100, 100],
     [101, 101, 102, 102, 48, 57, 58, 58],
     [65, 65, 66, 66, 67, 67, 68, 68],
     [69, 69, 70, 70, 93, 93, 97, 97],
     [98, 98, 99, 99, 100, 100, 101, 101],
     [102, 102, 48, 48, 49, 49, 50, 50],
     [51, 57, 65, 65, 66, 66, 67, 67],
     [68, 68, 69, 69, 70, 70, 93, 93],
     [97, 97, 98, 98, 99, 99, 100, 100],
     [101, 101, 102, 102, 46, 46, 48, 57],
     [58, 58, 65, 65, 66, 66, 67, 67],
     [68, 68, 69, 69, 70, 70, 93, 93],
     [97, 97, 98, 98, 99, 99, 100, 100],
     [101, 101, 102, 102, 48, 57, 58, 58],
     [65, 65, 66, 66, 67, 67, 68, 68],
     [69, 69, 70, 70, 93, 93, 97, 97],
     [98, 98, 99, 99, 100, 100, 101, 101],
     [102, 102, 48, 57, 58, 58, 65, 65],
     [66, 66, 67, 67, 68, 68, 69, 69],
     [70, 70, 93, 93, 97, 97, 98, 98],
     [99, 99, 100, 100, 101, 101, 102, 102],
     [58, 58, 93, 93, 48, 48, 49, 49],
     [50, 50, 51, 57, 65, 65, 66, 66],
     [67, 67, 68, 68, 69, 69, 70, 70],
     [97, 97, 98, 98, 99, 99, 100, 100],
     [101, 101, 102, 102, 46, 46, 48, 57],
     [58, 58, 65, 65, 66, 66, 67, 67],
     [68, 68, 69, 69, 70, 70, 93, 93],
     [97, 97, 98, 98, 99, 99, 100, 100],
     [101, 101, 102, 102, 46, 46, 48, 57],
     [58, 58, 65, 65, 66, 66, 67, 67],
     [68, 68, 69, 69, 70, 70, 93, 93],
     [97, 97, 98, 98, 99, 99, 100, 100],
     [101, 101, 102, 102, 46, 46, 48, 57],
     [58, 58, 65, 65, 66, 66, 67, 67],
     [68, 68, 69, 69, 70, 70, 93, 93],
     [97, 97, 98, 98, 99, 99, 100, 100],
     [101, 101, 102, 102, 46, 46, 48, 52],
     [53, 53, 54, 57, 58, 58, 65, 65],
     [66, 66, 67, 67, 68, 68, 69, 69],
     [70, 70, 93, 93, 97, 97, 98, 98],
     [99, 99, 100, 100, 101, 101, 102, 102],
     [46, 46, 48, 53, 54, 57, 58, 58],
     [65, 65, 66, 66, 67, 67, 68, 68],
     [69, 69, 70, 70, 93, 93, 97, 97],
     [98, 98, 99, 99, 100, 100, 101, 101],
     [102, 102, 46, 46, 48, 57, 58, 58],
     [65, 65, 66, 66, 67, 67, 68, 68],
     [69, 69, 70, 70, 93, 93, 97, 97],
     [98, 98, 99, 99, 100, 100, 101, 101],
     [102, 102, 46, 46, 48, 57, 58, 58],
     [65, 65, 66, 66, 67, 67, 68, 68],
     [69, 69, 70, 70, 93, 93, 97, 97],
     [98, 98, 99, 99, 100, 100, 101, 101],
     [102, 102, 48, 57, 58, 58, 65, 65],
     [66, 66, 67, 67, 68, 68, 69, 69],
     [70, 70, 93, 93, 97, 97, 98, 98],
     [99, 99, 100, 100, 101, 101, 102, 102],
     [48, 48, 49, 49, 50, 50, 51, 57],
     [65, 65, 66, 66, 67, 67, 68, 68]]"

definition sup_cond_keys_52 :: "int list list" where
  "sup_cond_keys_52 =
    [[69, 69, 70, 70, 93, 93, 97, 97],
     [98, 98, 99, 99, 100, 100, 101, 101],
     [102, 102, 46, 46, 48, 57, 58, 58],
     [65, 65, 66, 66, 67, 67, 68, 68],
     [69, 69, 70, 70, 93, 93, 97, 97],
     [98, 98, 99, 99, 100, 100, 101, 101],
     [102, 102, 48, 57, 58, 58, 65, 65],
     [66, 66, 67, 67, 68, 68, 69, 69],
     [70, 70, 93, 93, 97, 97, 98, 98],
     [99, 99, 100, 100, 101, 101, 102, 102],
     [48, 57, 58, 58, 65, 65, 66, 66],
     [67, 67, 68, 68, 69, 69, 70, 70],
     [93, 93, 97, 97, 98, 98, 99, 99],
     [100, 100, 101, 101, 102, 102, 58, 58],
     [93, 93, 48, 48, 49, 49, 50, 50],
     [51, 57, 65, 65, 66, 66, 67, 67],
     [68, 68, 69, 69, 70, 70, 97, 97],
     [98, 98, 99, 99, 100, 100, 101, 101],
     [102, 102, 46, 46, 48, 57, 58, 58],
     [65, 65, 66, 66, 67, 67, 68, 68],
     [69, 69, 70, 70, 93, 93, 97, 97],
     [98, 98, 99, 99, 100, 100, 101, 101],
     [102, 102, 46, 46, 48, 57, 58, 58],
     [65, 65, 66, 66, 67, 67, 68, 68],
     [69, 69, 70, 70, 93, 93, 97, 97],
     [98, 98, 99, 99, 100, 100, 101, 101],
     [102, 102, 46, 46, 48, 57, 58, 58],
     [65, 65, 66, 66, 67, 67, 68, 68],
     [69, 69, 70, 70, 93, 93, 97, 97],
     [98, 98, 99, 99, 100, 100, 101, 101],
     [102, 102, 46, 46, 48, 52, 53, 53],
     [54, 57, 58, 58, 65, 65, 66, 66],
     [67, 67, 68, 68, 69, 69, 70, 70],
     [93, 93, 97, 97, 98, 98, 99, 99],
     [100, 100, 101, 101, 102, 102, 46, 46],
     [48, 53, 54, 57, 58, 58, 65, 65],
     [66, 66, 67, 67, 68, 68, 69, 69],
     [70, 70, 93, 93, 97, 97, 98, 98],
     [99, 99, 100, 100, 101, 101, 102, 102],
     [46, 46, 48, 57, 58, 58, 65, 65],
     [66, 66, 67, 67, 68, 68, 69, 69],
     [70, 70, 93, 93, 97, 97, 98, 98],
     [99, 99, 100, 100, 101, 101, 102, 102],
     [46, 46, 48, 57, 58, 58, 65, 65],
     [66, 66, 67, 67, 68, 68, 69, 69],
     [70, 70, 93, 93, 97, 97, 98, 98],
     [99, 99, 100, 100, 101, 101, 102, 102],
     [48, 57, 58, 58, 65, 65, 66, 66],
     [67, 67, 68, 68, 69, 69, 70, 70],
     [93, 93, 97, 97, 98, 98, 99, 99],
     [100, 100, 101, 101, 102, 102, 48, 48],
     [49, 49, 50, 50, 51, 57, 65, 65],
     [66, 66, 67, 67, 68, 68, 69, 69],
     [70, 70, 93, 93, 97, 97, 98, 98],
     [99, 99, 100, 100, 101, 101, 102, 102],
     [46, 46, 48, 57, 58, 58, 65, 65],
     [66, 66, 67, 67, 68, 68, 69, 69],
     [70, 70, 93, 93, 97, 97, 98, 98],
     [99, 99, 100, 100, 101, 101, 102, 102],
     [48, 57, 58, 58, 65, 65, 66, 66],
     [67, 67, 68, 68, 69, 69, 70, 70],
     [93, 93, 97, 97, 98, 98, 99, 99],
     [100, 100, 101, 101, 102, 102, 48, 57],
     [58, 58, 65, 65, 66, 66, 67, 67],
     [68, 68, 69, 69, 70, 70, 93, 93],
     [97, 97, 98, 98, 99, 99, 100, 100],
     [101, 101, 102, 102, 58, 58, 93, 93],
     [48, 48, 49, 49, 50, 50, 51, 57],
     [65, 65, 66, 66, 67, 67, 68, 68],
     [69, 69, 70, 70, 97, 97, 98, 98],
     [99, 99, 100, 100, 101, 101, 102, 102],
     [46, 46, 48, 57, 58, 58, 65, 65],
     [66, 66, 67, 67, 68, 68, 69, 69],
     [70, 70, 93, 93, 97, 97, 98, 98],
     [99, 99, 100, 100, 101, 101, 102, 102],
     [46, 46, 48, 57, 58, 58, 65, 65],
     [66, 66, 67, 67, 68, 68, 69, 69],
     [70, 70, 93, 93, 97, 97, 98, 98],
     [99, 99, 100, 100, 101, 101, 102, 102],
     [46, 46, 48, 57, 58, 58, 65, 65],
     [66, 66, 67, 67, 68, 68, 69, 69],
     [70, 70, 93, 93, 97, 97, 98, 98],
     [99, 99, 100, 100, 101, 101, 102, 102],
     [46, 46, 48, 52, 53, 53, 54, 57],
     [58, 58, 65, 65, 66, 66, 67, 67],
     [68, 68, 69, 69, 70, 70, 93, 93],
     [97, 97, 98, 98, 99, 99, 100, 100],
     [101, 101, 102, 102, 46, 46, 48, 53],
     [54, 57, 58, 58, 65, 65, 66, 66],
     [67, 67, 68, 68, 69, 69, 70, 70],
     [93, 93, 97, 97, 98, 98, 99, 99],
     [100, 100, 101, 101, 102, 102, 46, 46],
     [48, 57, 58, 58, 65, 65, 66, 66],
     [67, 67, 68, 68, 69, 69, 70, 70],
     [93, 93, 97, 97, 98, 98, 99, 99],
     [100, 100, 101, 101, 102, 102, 46, 46],
     [48, 57, 58, 58, 65, 65, 66, 66],
     [67, 67, 68, 68, 69, 69, 70, 70],
     [93, 93, 97, 97, 98, 98, 99, 99],
     [100, 100, 101, 101, 102, 102, 48, 57],
     [58, 58, 65, 65, 66, 66, 67, 67],
     [68, 68, 69, 69, 70, 70, 93, 93],
     [97, 97, 98, 98, 99, 99, 100, 100],
     [101, 101, 102, 102, 58, 58, 48, 48],
     [49, 49, 50, 50, 51, 57, 65, 65],
     [66, 66, 67, 67, 68, 68, 69, 69],
     [70, 70, 93, 93, 97, 97, 98, 98],
     [99, 99, 100, 100, 101, 101, 102, 102],
     [46, 46, 48, 57, 58, 58, 65, 65],
     [66, 66, 67, 67, 68, 68, 69, 69],
     [70, 70, 93, 93, 97, 97, 98, 98],
     [99, 99, 100, 100, 101, 101, 102, 102],
     [48, 57, 58, 58, 65, 65, 66, 66],
     [67, 67, 68, 68, 69, 69, 70, 70],
     [93, 93, 97, 97, 98, 98, 99, 99],
     [100, 100, 101, 101, 102, 102, 48, 57],
     [58, 58, 65, 65, 66, 66, 67, 67],
     [68, 68, 69, 69, 70, 70, 93, 93],
     [97, 97, 98, 98, 99, 99, 100, 100],
     [101, 101, 102, 102, 58, 58, 93, 93],
     [48, 48, 49, 49, 50, 50, 51, 57],
     [65, 65, 66, 66, 67, 67, 68, 68],
     [69, 69, 70, 70, 97, 97, 98, 98],
     [99, 99, 100, 100, 101, 101, 102, 102],
     [46, 46, 48, 57, 58, 58, 65, 65],
     [66, 66, 67, 67, 68, 68, 69, 69],
     [70, 70, 93, 93, 97, 97, 98, 98],
     [99, 99, 100, 100, 101, 101, 102, 102],
     [46, 46, 48, 57, 58, 58, 65, 65],
     [66, 66, 67, 67, 68, 68, 69, 69],
     [70, 70, 93, 93, 97, 97, 98, 98],
     [99, 99, 100, 100, 101, 101, 102, 102],
     [46, 46, 48, 57, 58, 58, 65, 65],
     [66, 66, 67, 67, 68, 68, 69, 69],
     [70, 70, 93, 93, 97, 97, 98, 98],
     [99, 99, 100, 100, 101, 101, 102, 102],
     [46, 46, 48, 52, 53, 53, 54, 57],
     [58, 58, 65, 65, 66, 66, 67, 67],
     [68, 68, 69, 69, 70, 70, 93, 93],
     [97, 97, 98, 98, 99, 99, 100, 100],
     [101, 101, 102, 102, 46, 46, 48, 53],
     [54, 57, 58, 58, 65, 65, 66, 66],
     [67, 67, 68, 68, 69, 69, 70, 70],
     [93, 93, 97, 97, 98, 98, 99, 99],
     [100, 100, 101, 101, 102, 102, 46, 46],
     [48, 57, 58, 58, 65, 65, 66, 66],
     [67, 67, 68, 68, 69, 69, 70, 70],
     [93, 93, 97, 97, 98, 98, 99, 99],
     [100, 100, 101, 101, 102, 102, 46, 46],
     [48, 57, 58, 58, 65, 65, 66, 66]]"

definition sup_cond_keys_53 :: "int list list" where
  "sup_cond_keys_53 =
    [[67, 67, 68, 68, 69, 69, 70, 70],
     [93, 93, 97, 97, 98, 98, 99, 99],
     [100, 100, 101, 101, 102, 102, 48, 57],
     [58, 58, 65, 65, 66, 66, 67, 67],
     [68, 68, 69, 69, 70, 70, 93, 93],
     [97, 97, 98, 98, 99, 99, 100, 100],
     [101, 101, 102, 102, 48, 57, 65, 65],
     [66, 66, 67, 67, 68, 68, 69, 69],
     [70, 70, 97, 97, 98, 98, 99, 99],
     [100, 100, 101, 101, 102, 102, 48, 57],
     [65, 65, 66, 66, 67, 67, 68, 68],
     [69, 69, 70, 70, 97, 97, 98, 98],
     [99, 99, 100, 100, 101, 101, 102, 102],
     [9, 9, 13, 13, 32, 32, 33, 33],
     [36, 36, 37, 37, 38, 38, 39, 39],
     [40, 40, 41, 41, 42, 42, 43, 43],
     [45, 45, 46, 46, 47, 47, 48, 57],
     [58, 58, 59, 59, 61, 61, 64, 64],
     [65, 90, 95, 95, 97, 122, 126, 126],
     [48, 57, 65, 65, 66, 66, 67, 67],
     [68, 68, 69, 69, 70, 70, 97, 97],
     [98, 98, 99, 99, 100, 100, 101, 101],
     [102, 102, 48, 57, 65, 65, 66, 66],
     [67, 67, 68, 68, 69, 69, 70, 70],
     [97, 97, 98, 98, 99, 99, 100, 100],
     [101, 101, 102, 102, 9, 9, 13, 13],
     [32, 32, 33, 33, 36, 36, 37, 37],
     [38, 38, 39, 39, 40, 40, 41, 41],
     [42, 42, 43, 43, 45, 45, 46, 46],
     [47, 47, 48, 48, 49, 49, 50, 50],
     [51, 57, 58, 58, 59, 59, 61, 61],
     [64, 64, 65, 90, 91, 91, 95, 95],
     [97, 122, 126, 126, 9, 9, 13, 13],
     [32, 32, 33, 33, 37, 37, 39, 39],
     [42, 42, 43, 43, 45, 45, 46, 46],
     [48, 57, 58, 58, 60, 60, 65, 72],
     [73, 73, 74, 90, 95, 95, 96, 96],
     [97, 104, 105, 105, 106, 122, 126, 126],
     [9, 9, 13, 13, 32, 32, 33, 33],
     [37, 37, 39, 39, 42, 42, 43, 43],
     [45, 45, 46, 46, 48, 57, 58, 58],
     [60, 60, 65, 79, 80, 80, 81, 90],
     [95, 95, 96, 96, 97, 111, 112, 112],
     [113, 122, 126, 126, 9, 9, 13, 13],
     [32, 32, 33, 33, 37, 37, 39, 39],
     [42, 42, 43, 43, 45, 45, 46, 46],
     [48, 57, 58, 58, 60, 60, 65, 82],
     [83, 83, 84, 90, 95, 95, 96, 96],
     [97, 114, 115, 115, 116, 122, 126, 126],
     [33, 33, 35, 35, 36, 36, 37, 37],
     [38, 38, 39, 39, 40, 40, 41, 41],
     [42, 42, 43, 43, 45, 45, 46, 46],
     [47, 47, 48, 48, 49, 49, 50, 50],
     [51, 57, 61, 61, 65, 90, 91, 91],
     [95, 95, 97, 122, 126, 126, 33, 33],
     [35, 35, 36, 36, 37, 37, 38, 38],
     [39, 39, 40, 40, 41, 41, 42, 42],
     [43, 43, 45, 45, 46, 46, 47, 47],
     [48, 57, 58, 58, 61, 61, 64, 64],
     [65, 90, 95, 95, 97, 122, 126, 126],
     [48, 57, 65, 65, 66, 66, 67, 67],
     [68, 68, 69, 69, 70, 70, 97, 97],
     [98, 98, 99, 99, 100, 100, 101, 101],
     [102, 102, 48, 57, 65, 65, 66, 66],
     [67, 67, 68, 68, 69, 69, 70, 70],
     [97, 97, 98, 98, 99, 99, 100, 100],
     [101, 101, 102, 102, 33, 33, 36, 36],
     [37, 37, 38, 38, 39, 39, 40, 40],
     [41, 41, 42, 42, 43, 43, 45, 45],
     [46, 46, 48, 57, 61, 61, 64, 64],
     [65, 90, 95, 95, 97, 122, 126, 126],
     [48, 57, 65, 65, 66, 66, 67, 67],
     [68, 68, 69, 69, 70, 70, 97, 97],
     [98, 98, 99, 99, 100, 100, 101, 101],
     [102, 102, 48, 57, 65, 65, 66, 66],
     [67, 67, 68, 68, 69, 69, 70, 70],
     [97, 97, 98, 98, 99, 99, 100, 100],
     [101, 101, 102, 102, 48, 48, 49, 49],
     [50, 50, 51, 57, 65, 90, 91, 91],
     [97, 122, 45, 45, 46, 46, 48, 57],
     [65, 90, 95, 95, 97, 122, 45, 45],
     [48, 57, 65, 90, 95, 95, 97, 122],
     [45, 45, 46, 46, 48, 57, 65, 90],
     [95, 95, 97, 122, 48, 57, 65, 90],
     [97, 122, 9, 9, 13, 13, 32, 32],
     [45, 45, 46, 46, 48, 57, 58, 58],
     [59, 59, 65, 90, 95, 95, 97, 122],
     [45, 45, 48, 57, 65, 90, 95, 95],
     [97, 122, 9, 9, 13, 13, 32, 32],
     [48, 57, 58, 58, 59, 59, 65, 90],
     [97, 122, 48, 48, 49, 53, 54, 54],
     [55, 57, 48, 48, 49, 57, 48, 48],
     [49, 57, 49, 57, 9, 9, 13, 13],
     [32, 32, 59, 59, 9, 9, 13, 13],
     [32, 32, 48, 57, 59, 59, 9, 9],
     [13, 13, 32, 32, 48, 57, 59, 59],
     [9, 9, 13, 13, 32, 32, 48, 57],
     [59, 59, 9, 9, 13, 13, 32, 32],
     [48, 57, 59, 59, 9, 9, 13, 13],
     [32, 32, 48, 52, 53, 53, 54, 57],
     [59, 59, 9, 9, 13, 13, 32, 32],
     [48, 52, 53, 53, 54, 57, 59, 59],
     [9, 9, 13, 13, 32, 32, 48, 50],
     [51, 51, 52, 57, 59, 59, 9, 9],
     [13, 13, 32, 32, 48, 53, 59, 59],
     [48, 48, 49, 49, 50, 50, 51, 57],
     [65, 90, 97, 122, 45, 45, 46, 46],
     [48, 57, 65, 90, 95, 95, 97, 122],
     [48, 48, 49, 49, 50, 50, 51, 57],
     [65, 90, 97, 122, 45, 45, 46, 46],
     [48, 57, 65, 90, 95, 95, 97, 122],
     [48, 48, 49, 49, 50, 50, 51, 57],
     [65, 90, 97, 122, 9, 9, 13, 13],
     [32, 32, 45, 45, 46, 46, 48, 57],
     [58, 58, 59, 59, 65, 90, 95, 95],
     [97, 122, 9, 9, 13, 13, 32, 32],
     [45, 45, 46, 46, 48, 57, 58, 58],
     [59, 59, 65, 90, 95, 95, 97, 122],
     [9, 9, 13, 13, 32, 32, 45, 45],
     [46, 46, 48, 57, 58, 58, 59, 59],
     [65, 90, 95, 95, 97, 122, 9, 9],
     [13, 13, 32, 32, 45, 45, 46, 46],
     [48, 52, 53, 53, 54, 57, 58, 58],
     [59, 59, 65, 90, 95, 95, 97, 122],
     [9, 9, 13, 13, 32, 32, 45, 45],
     [46, 46, 48, 53, 54, 57, 58, 58],
     [59, 59, 65, 90, 95, 95, 97, 122],
     [45, 45, 46, 46, 48, 57, 65, 90],
     [95, 95, 97, 122, 45, 45, 46, 46],
     [48, 57, 65, 90, 95, 95, 97, 122],
     [45, 45, 46, 46, 48, 52, 53, 53],
     [54, 57, 65, 90, 95, 95, 97, 122],
     [45, 45, 46, 46, 48, 53, 54, 57],
     [65, 90, 95, 95, 97, 122, 45, 45],
     [46, 46, 48, 57, 65, 90, 95, 95],
     [97, 122, 45, 45, 46, 46, 48, 57],
     [65, 90, 95, 95, 97, 122, 45, 45],
     [46, 46, 48, 52, 53, 53, 54, 57],
     [65, 90, 95, 95, 97, 122, 45, 45],
     [46, 46, 48, 53, 54, 57, 65, 90],
     [95, 95, 97, 122, 45, 45, 46, 46],
     [48, 57, 65, 90, 95, 95, 97, 122],
     [45, 45, 46, 46, 48, 57, 65, 90],
     [95, 95, 97, 122, 45, 45, 46, 46],
     [48, 52, 53, 53, 54, 57, 65, 90],
     [95, 95, 97, 122, 45, 45, 46, 46],
     [48, 53, 54, 57, 65, 90, 95, 95],
     [97, 122, 48, 57, 58, 58, 65, 65],
     [66, 66, 67, 67, 68, 68, 69, 69],
     [70, 70, 97, 97, 98, 98, 99, 99]]"

definition sup_cond_keys_54 :: "int list list" where
  "sup_cond_keys_54 =
    [[100, 100, 101, 101, 102, 102, 48, 57],
     [58, 58, 65, 65, 66, 66, 67, 67],
     [68, 68, 69, 69, 70, 70, 97, 97],
     [98, 98, 99, 99, 100, 100, 101, 101],
     [102, 102, 48, 57, 58, 58, 65, 65],
     [66, 66, 67, 67, 68, 68, 69, 69],
     [70, 70, 97, 97, 98, 98, 99, 99],
     [100, 100, 101, 101, 102, 102, 48, 57],
     [58, 58, 65, 65, 66, 66, 67, 67],
     [68, 68, 69, 69, 70, 70, 97, 97],
     [98, 98, 99, 99, 100, 100, 101, 101],
     [102, 102, 58, 58, 48, 57, 58, 58],
     [65, 65, 66, 66, 67, 67, 68, 68],
     [69, 69, 70, 70, 97, 97, 98, 98],
     [99, 99, 100, 100, 101, 101, 102, 102],
     [48, 57, 58, 58, 65, 65, 66, 66],
     [67, 67, 68, 68, 69, 69, 70, 70],
     [97, 97, 98, 98, 99, 99, 100, 100],
     [101, 101, 102, 102, 48, 57, 58, 58],
     [65, 65, 66, 66, 67, 67, 68, 68],
     [69, 69, 70, 70, 97, 97, 98, 98],
     [99, 99, 100, 100, 101, 101, 102, 102],
     [48, 57, 58, 58, 65, 65, 66, 66],
     [67, 67, 68, 68, 69, 69, 70, 70],
     [97, 97, 98, 98, 99, 99, 100, 100],
     [101, 101, 102, 102, 58, 58, 48, 57],
     [58, 58, 65, 65, 66, 66, 67, 67],
     [68, 68, 69, 69, 70, 70, 97, 97],
     [98, 98, 99, 99, 100, 100, 101, 101],
     [102, 102, 48, 57, 58, 58, 65, 65],
     [66, 66, 67, 67, 68, 68, 69, 69],
     [70, 70, 97, 97, 98, 98, 99, 99],
     [100, 100, 101, 101, 102, 102, 48, 57],
     [58, 58, 65, 65, 66, 66, 67, 67],
     [68, 68, 69, 69, 70, 70, 97, 97],
     [98, 98, 99, 99, 100, 100, 101, 101],
     [102, 102, 48, 57, 58, 58, 65, 65],
     [66, 66, 67, 67, 68, 68, 69, 69],
     [70, 70, 97, 97, 98, 98, 99, 99],
     [100, 100, 101, 101, 102, 102, 58, 58],
     [48, 57, 58, 58, 65, 65, 66, 66],
     [67, 67, 68, 68, 69, 69, 70, 70],
     [97, 97, 98, 98, 99, 99, 100, 100],
     [101, 101, 102, 102, 48, 57, 58, 58],
     [65, 65, 66, 66, 67, 67, 68, 68],
     [69, 69, 70, 70, 97, 97, 98, 98],
     [99, 99, 100, 100, 101, 101, 102, 102],
     [48, 57, 58, 58, 65, 65, 66, 66],
     [67, 67, 68, 68, 69, 69, 70, 70],
     [97, 97, 98, 98, 99, 99, 100, 100],
     [101, 101, 102, 102, 48, 57, 58, 58],
     [65, 65, 66, 66, 67, 67, 68, 68],
     [69, 69, 70, 70, 97, 97, 98, 98],
     [99, 99, 100, 100, 101, 101, 102, 102],
     [58, 58, 48, 57, 58, 58, 65, 65],
     [66, 66, 67, 67, 68, 68, 69, 69],
     [70, 70, 97, 97, 98, 98, 99, 99],
     [100, 100, 101, 101, 102, 102, 48, 57],
     [58, 58, 65, 65, 66, 66, 67, 67],
     [68, 68, 69, 69, 70, 70, 97, 97],
     [98, 98, 99, 99, 100, 100, 101, 101],
     [102, 102, 48, 57, 58, 58, 65, 65],
     [66, 66, 67, 67, 68, 68, 69, 69],
     [70, 70, 97, 97, 98, 98, 99, 99],
     [100, 100, 101, 101, 102, 102, 48, 57],
     [58, 58, 65, 65, 66, 66, 67, 67],
     [68, 68, 69, 69, 70, 70, 97, 97],
     [98, 98, 99, 99, 100, 100, 101, 101],
     [102, 102, 58, 58, 48, 57, 58, 58],
     [65, 65, 66, 66, 67, 67, 68, 68],
     [69, 69, 70, 70, 97, 97, 98, 98],
     [99, 99, 100, 100, 101, 101, 102, 102],
     [48, 57, 58, 58, 65, 65, 66, 66],
     [67, 67, 68, 68, 69, 69, 70, 70],
     [97, 97, 98, 98, 99, 99, 100, 100],
     [101, 101, 102, 102, 48, 57, 58, 58],
     [65, 65, 66, 66, 67, 67, 68, 68],
     [69, 69, 70, 70, 97, 97, 98, 98],
     [99, 99, 100, 100, 101, 101, 102, 102],
     [48, 57, 58, 58, 65, 65, 66, 66],
     [67, 67, 68, 68, 69, 69, 70, 70],
     [97, 97, 98, 98, 99, 99, 100, 100],
     [101, 101, 102, 102, 58, 58, 48, 48],
     [49, 49, 50, 50, 51, 57, 58, 58],
     [65, 65, 66, 66, 67, 67, 68, 68],
     [69, 69, 70, 70, 97, 97, 98, 98],
     [99, 99, 100, 100, 101, 101, 102, 102],
     [46, 46, 48, 57, 58, 58, 65, 65],
     [66, 66, 67, 67, 68, 68, 69, 69],
     [70, 70, 97, 97, 98, 98, 99, 99],
     [100, 100, 101, 101, 102, 102, 48, 48],
     [49, 49, 50, 50, 51, 57, 46, 46],
     [48, 48, 49, 49, 50, 50, 51, 57],
     [46, 46, 48, 48, 49, 49, 50, 50],
     [51, 57, 93, 93, 9, 9, 13, 13],
     [32, 32, 58, 58, 59, 59, 48, 57],
     [93, 93, 48, 57, 93, 93, 48, 52],
     [53, 53, 54, 57, 93, 93, 48, 53],
     [93, 93, 46, 46, 48, 57, 46, 46],
     [48, 57, 46, 46, 48, 52, 53, 53],
     [54, 57, 46, 46, 48, 53, 46, 46],
     [48, 57, 46, 46, 48, 57, 46, 46],
     [48, 52, 53, 53, 54, 57, 46, 46],
     [48, 53, 48, 57, 58, 58, 65, 65],
     [66, 66, 67, 67, 68, 68, 69, 69],
     [70, 70, 97, 97, 98, 98, 99, 99],
     [100, 100, 101, 101, 102, 102, 48, 57],
     [58, 58, 65, 65, 66, 66, 67, 67],
     [68, 68, 69, 69, 70, 70, 97, 97],
     [98, 98, 99, 99, 100, 100, 101, 101],
     [102, 102, 58, 58, 48, 57, 58, 58],
     [65, 65, 66, 66, 67, 67, 68, 68],
     [69, 69, 70, 70, 97, 97, 98, 98],
     [99, 99, 100, 100, 101, 101, 102, 102],
     [48, 57, 65, 65, 66, 66, 67, 67],
     [68, 68, 69, 69, 70, 70, 93, 93],
     [97, 97, 98, 98, 99, 99, 100, 100],
     [101, 101, 102, 102, 48, 57, 65, 65],
     [66, 66, 67, 67, 68, 68, 69, 69],
     [70, 70, 93, 93, 97, 97, 98, 98],
     [99, 99, 100, 100, 101, 101, 102, 102],
     [48, 57, 65, 65, 66, 66, 67, 67],
     [68, 68, 69, 69, 70, 70, 93, 93],
     [97, 97, 98, 98, 99, 99, 100, 100],
     [101, 101, 102, 102, 46, 46, 48, 57],
     [58, 58, 65, 65, 66, 66, 67, 67],
     [68, 68, 69, 69, 70, 70, 97, 97],
     [98, 98, 99, 99, 100, 100, 101, 101],
     [102, 102, 46, 46, 48, 57, 58, 58],
     [65, 65, 66, 66, 67, 67, 68, 68],
     [69, 69, 70, 70, 97, 97, 98, 98],
     [99, 99, 100, 100, 101, 101, 102, 102],
     [46, 46, 48, 57, 58, 58, 65, 65],
     [66, 66, 67, 67, 68, 68, 69, 69],
     [70, 70, 97, 97, 98, 98, 99, 99],
     [100, 100, 101, 101, 102, 102, 46, 46],
     [48, 52, 53, 53, 54, 57, 58, 58],
     [65, 65, 66, 66, 67, 67, 68, 68],
     [69, 69, 70, 70, 97, 97, 98, 98],
     [99, 99, 100, 100, 101, 101, 102, 102],
     [46, 46, 48, 53, 54, 57, 58, 58],
     [65, 65, 66, 66, 67, 67, 68, 68],
     [69, 69, 70, 70, 97, 97, 98, 98],
     [99, 99, 100, 100, 101, 101, 102, 102],
     [46, 46, 48, 57, 58, 58, 65, 65],
     [66, 66, 67, 67, 68, 68, 69, 69],
     [70, 70, 97, 97, 98, 98, 99, 99],
     [100, 100, 101, 101, 102, 102, 46, 46],
     [48, 57, 58, 58, 65, 65, 66, 66],
     [67, 67, 68, 68, 69, 69, 70, 70]]"

definition sup_cond_keys_55 :: "int list list" where
  "sup_cond_keys_55 =
    [[97, 97, 98, 98, 99, 99, 100, 100],
     [101, 101, 102, 102, 48, 57, 65, 65],
     [66, 66, 67, 67, 68, 68, 69, 69],
     [70, 70, 93, 93, 97, 97, 98, 98],
     [99, 99, 100, 100, 101, 101, 102, 102],
     [48, 57, 58, 58, 65, 65, 66, 66],
     [67, 67, 68, 68, 69, 69, 70, 70],
     [97, 97, 98, 98, 99, 99, 100, 100],
     [101, 101, 102, 102, 48, 48, 49, 49],
     [50, 50, 51, 57, 65, 65, 66, 66],
     [67, 67, 68, 68, 69, 69, 70, 70],
     [93, 93, 97, 97, 98, 98, 99, 99],
     [100, 100, 101, 101, 102, 102, 46, 46],
     [48, 57, 58, 58, 65, 65, 66, 66],
     [67, 67, 68, 68, 69, 69, 70, 70],
     [93, 93, 97, 97, 98, 98, 99, 99],
     [100, 100, 101, 101, 102, 102, 48, 57],
     [58, 58, 65, 65, 66, 66, 67, 67],
     [68, 68, 69, 69, 70, 70, 93, 93],
     [97, 97, 98, 98, 99, 99, 100, 100],
     [101, 101, 102, 102, 48, 57, 58, 58],
     [65, 65, 66, 66, 67, 67, 68, 68],
     [69, 69, 70, 70, 93, 93, 97, 97],
     [98, 98, 99, 99, 100, 100, 101, 101],
     [102, 102, 58, 58, 93, 93, 48, 57],
     [65, 65, 66, 66, 67, 67, 68, 68],
     [69, 69, 70, 70, 97, 97, 98, 98],
     [99, 99, 100, 100, 101, 101, 102, 102],
     [46, 46, 48, 57, 58, 58, 65, 65],
     [66, 66, 67, 67, 68, 68, 69, 69],
     [70, 70, 93, 93, 97, 97, 98, 98],
     [99, 99, 100, 100, 101, 101, 102, 102],
     [46, 46, 48, 57, 58, 58, 65, 65],
     [66, 66, 67, 67, 68, 68, 69, 69],
     [70, 70, 93, 93, 97, 97, 98, 98],
     [99, 99, 100, 100, 101, 101, 102, 102],
     [46, 46, 48, 57, 58, 58, 65, 65],
     [66, 66, 67, 67, 68, 68, 69, 69],
     [70, 70, 93, 93, 97, 97, 98, 98],
     [99, 99, 100, 100, 101, 101, 102, 102],
     [46, 46, 48, 52, 53, 53, 54, 57],
     [58, 58, 65, 65, 66, 66, 67, 67],
     [68, 68, 69, 69, 70, 70, 93, 93],
     [97, 97, 98, 98, 99, 99, 100, 100],
     [101, 101, 102, 102, 46, 46, 48, 53],
     [54, 57, 58, 58, 65, 65, 66, 66],
     [67, 67, 68, 68, 69, 69, 70, 70],
     [93, 93, 97, 97, 98, 98, 99, 99],
     [100, 100, 101, 101, 102, 102, 46, 46],
     [48, 57, 58, 58, 65, 65, 66, 66],
     [67, 67, 68, 68, 69, 69, 70, 70],
     [93, 93, 97, 97, 98, 98, 99, 99],
     [100, 100, 101, 101, 102, 102, 46, 46],
     [48, 57, 58, 58, 65, 65, 66, 66],
     [67, 67, 68, 68, 69, 69, 70, 70],
     [93, 93, 97, 97, 98, 98, 99, 99],
     [100, 100, 101, 101, 102, 102, 48, 57],
     [58, 58, 65, 65, 66, 66, 67, 67],
     [68, 68, 69, 69, 70, 70, 93, 93],
     [97, 97, 98, 98, 99, 99, 100, 100],
     [101, 101, 102, 102, 48, 48, 49, 49],
     [50, 50, 51, 57, 65, 65, 66, 66],
     [67, 67, 68, 68, 69, 69, 70, 70],
     [93, 93, 97, 97, 98, 98, 99, 99],
     [100, 100, 101, 101, 102, 102, 46, 46],
     [48, 57, 58, 58, 65, 65, 66, 66],
     [67, 67, 68, 68, 69, 69, 70, 70],
     [93, 93, 97, 97, 98, 98, 99, 99],
     [100, 100, 101, 101, 102, 102, 48, 57],
     [58, 58, 65, 65, 66, 66, 67, 67],
     [68, 68, 69, 69, 70, 70, 93, 93],
     [97, 97, 98, 98, 99, 99, 100, 100],
     [101, 101, 102, 102, 48, 57, 58, 58],
     [65, 65, 66, 66, 67, 67, 68, 68],
     [69, 69, 70, 70, 93, 93, 97, 97],
     [98, 98, 99, 99, 100, 100, 101, 101],
     [102, 102, 58, 58, 93, 93, 48, 48],
     [49, 49, 50, 50, 51, 57, 65, 65],
     [66, 66, 67, 67, 68, 68, 69, 69],
     [70, 70, 97, 97, 98, 98, 99, 99],
     [100, 100, 101, 101, 102, 102, 46, 46],
     [48, 57, 58, 58, 65, 65, 66, 66],
     [67, 67, 68, 68, 69, 69, 70, 70],
     [93, 93, 97, 97, 98, 98, 99, 99],
     [100, 100, 101, 101, 102, 102, 46, 46],
     [48, 57, 58, 58, 65, 65, 66, 66],
     [67, 67, 68, 68, 69, 69, 70, 70],
     [93, 93, 97, 97, 98, 98, 99, 99],
     [100, 100, 101, 101, 102, 102, 46, 46],
     [48, 57, 58, 58, 65, 65, 66, 66],
     [67, 67, 68, 68, 69, 69, 70, 70],
     [93, 93, 97, 97, 98, 98, 99, 99],
     [100, 100, 101, 101, 102, 102, 46, 46],
     [48, 52, 53, 53, 54, 57, 58, 58],
     [65, 65, 66, 66, 67, 67, 68, 68],
     [69, 69, 70, 70, 93, 93, 97, 97],
     [98, 98, 99, 99, 100, 100, 101, 101],
     [102, 102, 46, 46, 48, 53, 54, 57],
     [58, 58, 65, 65, 66, 66, 67, 67],
     [68, 68, 69, 69, 70, 70, 93, 93],
     [97, 97, 98, 98, 99, 99, 100, 100],
     [101, 101, 102, 102, 46, 46, 48, 57],
     [58, 58, 65, 65, 66, 66, 67, 67],
     [68, 68, 69, 69, 70, 70, 93, 93],
     [97, 97, 98, 98, 99, 99, 100, 100],
     [101, 101, 102, 102, 46, 46, 48, 57],
     [58, 58, 65, 65, 66, 66, 67, 67],
     [68, 68, 69, 69, 70, 70, 93, 93],
     [97, 97, 98, 98, 99, 99, 100, 100],
     [101, 101, 102, 102, 48, 57, 58, 58],
     [65, 65, 66, 66, 67, 67, 68, 68],
     [69, 69, 70, 70, 93, 93, 97, 97],
     [98, 98, 99, 99, 100, 100, 101, 101],
     [102, 102, 48, 48, 49, 49, 50, 50],
     [51, 57, 65, 65, 66, 66, 67, 67],
     [68, 68, 69, 69, 70, 70, 93, 93],
     [97, 97, 98, 98, 99, 99, 100, 100],
     [101, 101, 102, 102, 46, 46, 48, 57],
     [58, 58, 65, 65, 66, 66, 67, 67],
     [68, 68, 69, 69, 70, 70, 93, 93],
     [97, 97, 98, 98, 99, 99, 100, 100],
     [101, 101, 102, 102, 48, 57, 58, 58],
     [65, 65, 66, 66, 67, 67, 68, 68],
     [69, 69, 70, 70, 93, 93, 97, 97],
     [98, 98, 99, 99, 100, 100, 101, 101],
     [102, 102, 48, 57, 58, 58, 65, 65],
     [66, 66, 67, 67, 68, 68, 69, 69],
     [70, 70, 93, 93, 97, 97, 98, 98],
     [99, 99, 100, 100, 101, 101, 102, 102],
     [58, 58, 93, 93, 48, 48, 49, 49],
     [50, 50, 51, 57, 65, 65, 66, 66],
     [67, 67, 68, 68, 69, 69, 70, 70],
     [97, 97, 98, 98, 99, 99, 100, 100],
     [101, 101, 102, 102, 46, 46, 48, 57],
     [58, 58, 65, 65, 66, 66, 67, 67],
     [68, 68, 69, 69, 70, 70, 93, 93],
     [97, 97, 98, 98, 99, 99, 100, 100],
     [101, 101, 102, 102, 46, 46, 48, 57],
     [58, 58, 65, 65, 66, 66, 67, 67],
     [68, 68, 69, 69, 70, 70, 93, 93],
     [97, 97, 98, 98, 99, 99, 100, 100],
     [101, 101, 102, 102, 46, 46, 48, 57],
     [58, 58, 65, 65, 66, 66, 67, 67],
     [68, 68, 69, 69, 70, 70, 93, 93],
     [97, 97, 98, 98, 99, 99, 100, 100],
     [101, 101, 102, 102, 46, 46, 48, 52],
     [53, 53, 54, 57, 58, 58, 65, 65],
     [66, 66, 67, 67, 68, 68, 69, 69],
     [70, 70, 93, 93, 97, 97, 98, 98],
     [99, 99, 100, 100, 101, 101, 102, 102]]"

definition sup_cond_keys_56 :: "int list list" where
  "sup_cond_keys_56 =
    [[46, 46, 48, 53, 54, 57, 58, 58],
     [65, 65, 66, 66, 67, 67, 68, 68],
     [69, 69, 70, 70, 93, 93, 97, 97],
     [98, 98, 99, 99, 100, 100, 101, 101],
     [102, 102, 46, 46, 48, 57, 58, 58],
     [65, 65, 66, 66, 67, 67, 68, 68],
     [69, 69, 70, 70, 93, 93, 97, 97],
     [98, 98, 99, 99, 100, 100, 101, 101],
     [102, 102, 46, 46, 48, 57, 58, 58],
     [65, 65, 66, 66, 67, 67, 68, 68],
     [69, 69, 70, 70, 93, 93, 97, 97],
     [98, 98, 99, 99, 100, 100, 101, 101],
     [102, 102, 48, 57, 58, 58, 65, 65],
     [66, 66, 67, 67, 68, 68, 69, 69],
     [70, 70, 93, 93, 97, 97, 98, 98],
     [99, 99, 100, 100, 101, 101, 102, 102],
     [48, 48, 49, 49, 50, 50, 51, 57],
     [65, 65, 66, 66, 67, 67, 68, 68],
     [69, 69, 70, 70, 93, 93, 97, 97],
     [98, 98, 99, 99, 100, 100, 101, 101],
     [102, 102, 46, 46, 48, 57, 58, 58],
     [65, 65, 66, 66, 67, 67, 68, 68],
     [69, 69, 70, 70, 93, 93, 97, 97],
     [98, 98, 99, 99, 100, 100, 101, 101],
     [102, 102, 48, 57, 58, 58, 65, 65],
     [66, 66, 67, 67, 68, 68, 69, 69],
     [70, 70, 93, 93, 97, 97, 98, 98],
     [99, 99, 100, 100, 101, 101, 102, 102],
     [48, 57, 58, 58, 65, 65, 66, 66],
     [67, 67, 68, 68, 69, 69, 70, 70],
     [93, 93, 97, 97, 98, 98, 99, 99],
     [100, 100, 101, 101, 102, 102, 58, 58],
     [93, 93, 48, 48, 49, 49, 50, 50],
     [51, 57, 65, 65, 66, 66, 67, 67],
     [68, 68, 69, 69, 70, 70, 97, 97],
     [98, 98, 99, 99, 100, 100, 101, 101],
     [102, 102, 46, 46, 48, 57, 58, 58],
     [65, 65, 66, 66, 67, 67, 68, 68],
     [69, 69, 70, 70, 93, 93, 97, 97],
     [98, 98, 99, 99, 100, 100, 101, 101],
     [102, 102, 46, 46, 48, 57, 58, 58],
     [65, 65, 66, 66, 67, 67, 68, 68],
     [69, 69, 70, 70, 93, 93, 97, 97],
     [98, 98, 99, 99, 100, 100, 101, 101],
     [102, 102, 46, 46, 48, 57, 58, 58],
     [65, 65, 66, 66, 67, 67, 68, 68],
     [69, 69, 70, 70, 93, 93, 97, 97],
     [98, 98, 99, 99, 100, 100, 101, 101],
     [102, 102, 46, 46, 48, 52, 53, 53],
     [54, 57, 58, 58, 65, 65, 66, 66],
     [67, 67, 68, 68, 69, 69, 70, 70],
     [93, 93, 97, 97, 98, 98, 99, 99],
     [100, 100, 101, 101, 102, 102, 46, 46],
     [48, 53, 54, 57, 58, 58, 65, 65],
     [66, 66, 67, 67, 68, 68, 69, 69],
     [70, 70, 93, 93, 97, 97, 98, 98],
     [99, 99, 100, 100, 101, 101, 102, 102],
     [46, 46, 48, 57, 58, 58, 65, 65],
     [66, 66, 67, 67, 68, 68, 69, 69],
     [70, 70, 93, 93, 97, 97, 98, 98],
     [99, 99, 100, 100, 101, 101, 102, 102],
     [46, 46, 48, 57, 58, 58, 65, 65],
     [66, 66, 67, 67, 68, 68, 69, 69],
     [70, 70, 93, 93, 97, 97, 98, 98],
     [99, 99, 100, 100, 101, 101, 102, 102],
     [48, 57, 58, 58, 65, 65, 66, 66],
     [67, 67, 68, 68, 69, 69, 70, 70],
     [93, 93, 97, 97, 98, 98, 99, 99],
     [100, 100, 101, 101, 102, 102, 48, 48],
     [49, 49, 50, 50, 51, 57, 65, 65],
     [66, 66, 67, 67, 68, 68, 69, 69],
     [70, 70, 93, 93, 97, 97, 98, 98],
     [99, 99, 100, 100, 101, 101, 102, 102],
     [46, 46, 48, 57, 58, 58, 65, 65],
     [66, 66, 67, 67, 68, 68, 69, 69],
     [70, 70, 93, 93, 97, 97, 98, 98],
     [99, 99, 100, 100, 101, 101, 102, 102],
     [48, 57, 58, 58, 65, 65, 66, 66],
     [67, 67, 68, 68, 69, 69, 70, 70],
     [93, 93, 97, 97, 98, 98, 99, 99],
     [100, 100, 101, 101, 102, 102, 48, 57],
     [58, 58, 65, 65, 66, 66, 67, 67],
     [68, 68, 69, 69, 70, 70, 93, 93],
     [97, 97, 98, 98, 99, 99, 100, 100],
     [101, 101, 102, 102, 58, 58, 93, 93],
     [48, 48, 49, 49, 50, 50, 51, 57],
     [65, 65, 66, 66, 67, 67, 68, 68],
     [69, 69, 70, 70, 97, 97, 98, 98],
     [99, 99, 100, 100, 101, 101, 102, 102],
     [46, 46, 48, 57, 58, 58, 65, 65],
     [66, 66, 67, 67, 68, 68, 69, 69],
     [70, 70, 93, 93, 97, 97, 98, 98],
     [99, 99, 100, 100, 101, 101, 102, 102],
     [46, 46, 48, 57, 58, 58, 65, 65],
     [66, 66, 67, 67, 68, 68, 69, 69],
     [70, 70, 93, 93, 97, 97, 98, 98],
     [99, 99, 100, 100, 101, 101, 102, 102],
     [46, 46, 48, 57, 58, 58, 65, 65],
     [66, 66, 67, 67, 68, 68, 69, 69],
     [70, 70, 93, 93, 97, 97, 98, 98],
     [99, 99, 100, 100, 101, 101, 102, 102],
     [46, 46, 48, 52, 53, 53, 54, 57],
     [58, 58, 65, 65, 66, 66, 67, 67],
     [68, 68, 69, 69, 70, 70, 93, 93],
     [97, 97, 98, 98, 99, 99, 100, 100],
     [101, 101, 102, 102, 46, 46, 48, 53],
     [54, 57, 58, 58, 65, 65, 66, 66],
     [67, 67, 68, 68, 69, 69, 70, 70],
     [93, 93, 97, 97, 98, 98, 99, 99],
     [100, 100, 101, 101, 102, 102, 46, 46],
     [48, 57, 58, 58, 65, 65, 66, 66],
     [67, 67, 68, 68, 69, 69, 70, 70],
     [93, 93, 97, 97, 98, 98, 99, 99],
     [100, 100, 101, 101, 102, 102, 46, 46],
     [48, 57, 58, 58, 65, 65, 66, 66],
     [67, 67, 68, 68, 69, 69, 70, 70],
     [93, 93, 97, 97, 98, 98, 99, 99],
     [100, 100, 101, 101, 102, 102, 48, 57],
     [58, 58, 65, 65, 66, 66, 67, 67],
     [68, 68, 69, 69, 70, 70, 93, 93],
     [97, 97, 98, 98, 99, 99, 100, 100],
     [101, 101, 102, 102, 58, 58, 48, 48],
     [49, 49, 50, 50, 51, 57, 65, 65],
     [66, 66, 67, 67, 68, 68, 69, 69],
     [70, 70, 93, 93, 97, 97, 98, 98],
     [99, 99, 100, 100, 101, 101, 102, 102],
     [46, 46, 48, 57, 58, 58, 65, 65],
     [66, 66, 67, 67, 68, 68, 69, 69],
     [70, 70, 93, 93, 97, 97, 98, 98],
     [99, 99, 100, 100, 101, 101, 102, 102],
     [48, 57, 58, 58, 65, 65, 66, 66],
     [67, 67, 68, 68, 69, 69, 70, 70],
     [93, 93, 97, 97, 98, 98, 99, 99],
     [100, 100, 101, 101, 102, 102, 48, 57],
     [58, 58, 65, 65, 66, 66, 67, 67],
     [68, 68, 69, 69, 70, 70, 93, 93],
     [97, 97, 98, 98, 99, 99, 100, 100],
     [101, 101, 102, 102, 58, 58, 93, 93],
     [48, 48, 49, 49, 50, 50, 51, 57],
     [65, 65, 66, 66, 67, 67, 68, 68],
     [69, 69, 70, 70, 97, 97, 98, 98],
     [99, 99, 100, 100, 101, 101, 102, 102],
     [46, 46, 48, 57, 58, 58, 65, 65],
     [66, 66, 67, 67, 68, 68, 69, 69],
     [70, 70, 93, 93, 97, 97, 98, 98],
     [99, 99, 100, 100, 101, 101, 102, 102],
     [46, 46, 48, 57, 58, 58, 65, 65],
     [66, 66, 67, 67, 68, 68, 69, 69],
     [70, 70, 93, 93, 97, 97, 98, 98],
     [99, 99, 100, 100, 101, 101, 102, 102]]"

definition sup_cond_keys_57 :: "int list list" where
  "sup_cond_keys_57 =
    [[46, 46, 48, 57, 58, 58, 65, 65],
     [66, 66, 67, 67, 68, 68, 69, 69],
     [70, 70, 93, 93, 97, 97, 98, 98],
     [99, 99, 100, 100, 101, 101, 102, 102],
     [46, 46, 48, 52, 53, 53, 54, 57],
     [58, 58, 65, 65, 66, 66, 67, 67],
     [68, 68, 69, 69, 70, 70, 93, 93],
     [97, 97, 98, 98, 99, 99, 100, 100],
     [101, 101, 102, 102, 46, 46, 48, 53],
     [54, 57, 58, 58, 65, 65, 66, 66],
     [67, 67, 68, 68, 69, 69, 70, 70],
     [93, 93, 97, 97, 98, 98, 99, 99],
     [100, 100, 101, 101, 102, 102, 46, 46],
     [48, 57, 58, 58, 65, 65, 66, 66],
     [67, 67, 68, 68, 69, 69, 70, 70],
     [93, 93, 97, 97, 98, 98, 99, 99],
     [100, 100, 101, 101, 102, 102, 46, 46],
     [48, 57, 58, 58, 65, 65, 66, 66],
     [67, 67, 68, 68, 69, 69, 70, 70],
     [93, 93, 97, 97, 98, 98, 99, 99],
     [100, 100, 101, 101, 102, 102, 48, 57],
     [58, 58, 65, 65, 66, 66, 67, 67],
     [68, 68, 69, 69, 70, 70, 93, 93],
     [97, 97, 98, 98, 99, 99, 100, 100],
     [101, 101, 102, 102, 33, 33, 35, 35],
     [36, 36, 37, 37, 38, 38, 39, 39],
     [40, 40, 41, 41, 42, 42, 43, 43],
     [45, 45, 46, 46, 47, 47, 48, 57],
     [58, 58, 61, 61, 64, 64, 65, 90],
     [95, 95, 97, 122, 126, 126, 33, 33],
     [35, 35, 36, 36, 37, 37, 38, 38],
     [39, 39, 40, 40, 41, 41, 42, 42],
     [43, 43, 45, 45, 46, 46, 47, 47],
     [48, 57, 58, 58, 61, 61, 64, 64],
     [65, 90, 95, 95, 97, 122, 126, 126],
     [33, 33, 35, 35, 36, 36, 37, 37],
     [38, 38, 39, 39, 40, 40, 41, 41],
     [42, 42, 43, 43, 45, 45, 46, 46],
     [47, 47, 48, 57, 58, 58, 61, 61],
     [64, 64, 65, 90, 95, 95, 97, 122],
     [126, 126, 33, 33, 35, 35, 36, 36],
     [37, 37, 38, 38, 39, 39, 40, 40],
     [41, 41, 42, 42, 43, 43, 45, 45],
     [46, 46, 47, 47, 48, 57, 58, 58],
     [61, 61, 64, 64, 65, 90, 95, 95],
     [97, 122, 126, 126, 9, 9, 13, 13],
     [32, 32, 33, 33, 35, 35, 36, 36],
     [37, 37, 38, 38, 39, 39, 40, 40],
     [41, 41, 42, 42, 43, 43, 45, 45],
     [46, 46, 47, 47, 48, 57, 58, 58],
     [59, 59, 61, 61, 64, 64, 65, 90],
     [95, 95, 97, 122, 126, 126, 33, 33],
     [35, 35, 36, 36, 37, 37, 38, 38],
     [39, 39, 40, 40, 41, 41, 42, 42],
     [43, 43, 45, 45, 46, 46, 47, 47],
     [48, 57, 58, 58, 61, 61, 64, 64],
     [65, 90, 95, 95, 97, 122, 126, 126],
     [9, 9, 13, 13, 32, 32, 33, 33],
     [35, 35, 36, 36, 37, 37, 38, 38],
     [39, 39, 40, 40, 41, 41, 42, 42],
     [43, 43, 45, 45, 46, 46, 47, 47],
     [48, 57, 58, 58, 59, 59, 61, 61],
     [64, 64, 65, 90, 95, 95, 97, 122],
     [126, 126, 33, 33, 36, 36, 37, 37],
     [38, 38, 39, 39, 40, 40, 41, 41],
     [42, 42, 43, 43, 45, 45, 46, 46],
     [48, 48, 49, 53, 54, 54, 55, 57],
     [61, 61, 64, 64, 65, 90, 95, 95],
     [97, 122, 126, 126, 33, 33, 36, 36],
     [37, 37, 38, 38, 39, 39, 40, 40],
     [41, 41, 42, 42, 43, 43, 45, 45],
     [46, 46, 48, 48, 49, 57, 61, 61],
     [64, 64, 65, 90, 95, 95, 97, 122],
     [126, 126, 33, 33, 36, 36, 37, 37],
     [38, 38, 39, 39, 40, 40, 41, 41],
     [42, 42, 43, 43, 45, 45, 46, 46],
     [48, 48, 49, 57, 61, 61, 64, 64],
     [65, 90, 95, 95, 97, 122, 126, 126],
     [33, 33, 36, 36, 37, 37, 38, 38],
     [39, 39, 40, 40, 41, 41, 42, 42],
     [43, 43, 45, 45, 46, 46, 48, 48],
     [49, 57, 61, 61, 64, 64, 65, 90],
     [95, 95, 97, 122, 126, 126, 9, 9],
     [13, 13, 32, 32, 33, 33, 36, 36],
     [37, 37, 38, 38, 39, 39, 40, 40],
     [41, 41, 42, 42, 43, 43, 45, 45],
     [46, 46, 48, 57, 59, 59, 61, 61],
     [64, 64, 65, 90, 95, 95, 97, 122],
     [126, 126, 9, 9, 13, 13, 32, 32],
     [33, 33, 36, 36, 37, 37, 38, 38],
     [39, 39, 40, 40, 41, 41, 42, 42],
     [43, 43, 45, 45, 46, 46, 48, 57],
     [59, 59, 61, 61, 64, 64, 65, 90],
     [95, 95, 97, 122, 126, 126, 9, 9],
     [13, 13, 32, 32, 33, 33, 36, 36],
     [37, 37, 38, 38, 39, 39, 40, 40],
     [41, 41, 42, 42, 43, 43, 45, 45],
     [46, 46, 48, 57, 59, 59, 61, 61],
     [64, 64, 65, 90, 95, 95, 97, 122],
     [126, 126, 9, 9, 13, 13, 32, 32],
     [33, 33, 36, 36, 37, 37, 38, 38],
     [39, 39, 40, 40, 41, 41, 42, 42],
     [43, 43, 45, 45, 46, 46, 48, 57],
     [59, 59, 61, 61, 64, 64, 65, 90],
     [95, 95, 97, 122, 126, 126, 9, 9],
     [13, 13, 32, 32, 33, 33, 36, 36],
     [37, 37, 38, 38, 39, 39, 40, 40],
     [41, 41, 42, 42, 43, 43, 45, 45],
     [46, 46, 48, 57, 59, 59, 61, 61],
     [64, 64, 65, 90, 95, 95, 97, 122],
     [126, 126, 9, 9, 13, 13, 32, 32],
     [33, 33, 36, 36, 37, 37, 38, 38],
     [39, 39, 40, 40, 41, 41, 42, 42],
     [43, 43, 45, 45, 46, 46, 48, 52],
     [53, 53, 54, 57, 59, 59, 61, 61],
     [64, 64, 65, 90, 95, 95, 97, 122],
     [126, 126, 9, 9, 13, 13, 32, 32],
     [33, 33, 36, 36, 37, 37, 38, 38],
     [39, 39, 40, 40, 41, 41, 42, 42],
     [43, 43, 45, 45, 46, 46, 48, 52],
     [53, 53, 54, 57, 59, 59, 61, 61],
     [64, 64, 65, 90, 95, 95, 97, 122],
     [126, 126, 9, 9, 13, 13, 32, 32],
     [33, 33, 36, 36, 37, 37, 38, 38],
     [39, 39, 40, 40, 41, 41, 42, 42],
     [43, 43, 45, 45, 46, 46, 48, 50],
     [51, 51, 52, 57, 59, 59, 61, 61],
     [64, 64, 65, 90, 95, 95, 97, 122],
     [126, 126, 9, 9, 13, 13, 32, 32],
     [33, 33, 36, 36, 37, 37, 38, 38],
     [39, 39, 40, 40, 41, 41, 42, 42],
     [43, 43, 45, 45, 46, 46, 48, 53],
     [54, 57, 59, 59, 61, 61, 64, 64],
     [65, 90, 95, 95, 97, 122, 126, 126],
     [33, 33, 35, 35, 36, 36, 37, 37],
     [38, 38, 39, 39, 40, 40, 41, 41],
     [42, 42, 43, 43, 45, 45, 46, 46],
     [47, 47, 48, 48, 49, 49, 50, 50],
     [51, 57, 58, 58, 61, 61, 64, 64],
     [65, 90, 95, 95, 97, 122, 126, 126],
     [33, 33, 35, 35, 36, 36, 37, 37],
     [38, 38, 39, 39, 40, 40, 41, 41],
     [42, 42, 43, 43, 45, 45, 46, 46],
     [47, 47, 48, 57, 58, 58, 61, 61],
     [64, 64, 65, 90, 95, 95, 97, 122],
     [126, 126, 33, 33, 35, 35, 36, 36],
     [37, 37, 38, 38, 39, 39, 40, 40],
     [41, 41, 42, 42, 43, 43, 45, 45],
     [46, 46, 47, 47, 48, 48, 49, 49],
     [50, 50, 51, 57, 58, 58, 61, 61]]"

definition sup_cond_keys_58 :: "int list list" where
  "sup_cond_keys_58 =
    [[64, 64, 65, 90, 95, 95, 97, 122],
     [126, 126, 33, 33, 35, 35, 36, 36],
     [37, 37, 38, 38, 39, 39, 40, 40],
     [41, 41, 42, 42, 43, 43, 45, 45],
     [46, 46, 47, 47, 48, 57, 58, 58],
     [61, 61, 64, 64, 65, 90, 95, 95],
     [97, 122, 126, 126, 33, 33, 35, 35],
     [36, 36, 37, 37, 38, 38, 39, 39],
     [40, 40, 41, 41, 42, 42, 43, 43],
     [45, 45, 46, 46, 47, 47, 48, 48],
     [49, 49, 50, 50, 51, 57, 58, 58],
     [61, 61, 64, 64, 65, 90, 95, 95],
     [97, 122, 126, 126, 9, 9, 13, 13],
     [32, 32, 33, 33, 35, 35, 36, 36],
     [37, 37, 38, 38, 39, 39, 40, 40],
     [41, 41, 42, 42, 43, 43, 45, 45],
     [46, 46, 47, 47, 48, 57, 58, 58],
     [59, 59, 61, 61, 64, 64, 65, 90],
     [95, 95, 97, 122, 126, 126, 9, 9],
     [13, 13, 32, 32, 33, 33, 35, 35],
     [36, 36, 37, 37, 38, 38, 39, 39],
     [40, 40, 41, 41, 42, 42, 43, 43],
     [45, 45, 46, 46, 47, 47, 48, 57],
     [58, 58, 59, 59, 61, 61, 64, 64],
     [65, 90, 95, 95, 97, 122, 126, 126],
     [9, 9, 13, 13, 32, 32, 33, 33],
     [35, 35, 36, 36, 37, 37, 38, 38],
     [39, 39, 40, 40, 41, 41, 42, 42],
     [43, 43, 45, 45, 46, 46, 47, 47],
     [48, 57, 58, 58, 59, 59, 61, 61],
     [64, 64, 65, 90, 95, 95, 97, 122],
     [126, 126, 9, 9, 13, 13, 32, 32],
     [33, 33, 35, 35, 36, 36, 37, 37],
     [38, 38, 39, 39, 40, 40, 41, 41],
     [42, 42, 43, 43, 45, 45, 46, 46],
     [47, 47, 48, 52, 53, 53, 54, 57],
     [58, 58, 59, 59, 61, 61, 64, 64],
     [65, 90, 95, 95, 97, 122, 126, 126],
     [9, 9, 13, 13, 32, 32, 33, 33],
     [35, 35, 36, 36, 37, 37, 38, 38],
     [39, 39, 40, 40, 41, 41, 42, 42],
     [43, 43, 45, 45, 46, 46, 47, 47],
     [48, 53, 54, 57, 58, 58, 59, 59],
     [61, 61, 64, 64, 65, 90, 95, 95],
     [97, 122, 126, 126, 33, 33, 35, 35],
     [36, 36, 37, 37, 38, 38, 39, 39],
     [40, 40, 41, 41, 42, 42, 43, 43],
     [45, 45, 46, 46, 47, 47, 48, 57],
     [58, 58, 61, 61, 64, 64, 65, 90],
     [95, 95, 97, 122, 126, 126, 33, 33],
     [35, 35, 36, 36, 37, 37, 38, 38],
     [39, 39, 40, 40, 41, 41, 42, 42],
     [43, 43, 45, 45, 46, 46, 47, 47],
     [48, 57, 58, 58, 61, 61, 64, 64],
     [65, 90, 95, 95, 97, 122, 126, 126],
     [33, 33, 35, 35, 36, 36, 37, 37],
     [38, 38, 39, 39, 40, 40, 41, 41],
     [42, 42, 43, 43, 45, 45, 46, 46],
     [47, 47, 48, 52, 53, 53, 54, 57],
     [58, 58, 61, 61, 64, 64, 65, 90],
     [95, 95, 97, 122, 126, 126, 33, 33],
     [35, 35, 36, 36, 37, 37, 38, 38],
     [39, 39, 40, 40, 41, 41, 42, 42],
     [43, 43, 45, 45, 46, 46, 47, 47],
     [48, 53, 54, 57, 58, 58, 61, 61],
     [64, 64, 65, 90, 95, 95, 97, 122],
     [126, 126, 33, 33, 35, 35, 36, 36],
     [37, 37, 38, 38, 39, 39, 40, 40],
     [41, 41, 42, 42, 43, 43, 45, 45],
     [46, 46, 47, 47, 48, 57, 58, 58],
     [61, 61, 64, 64, 65, 90, 95, 95],
     [97, 122, 126, 126, 33, 33, 35, 35],
     [36, 36, 37, 37, 38, 38, 39, 39],
     [40, 40, 41, 41, 42, 42, 43, 43],
     [45, 45, 46, 46, 47, 47, 48, 57],
     [58, 58, 61, 61, 64, 64, 65, 90],
     [95, 95, 97, 122, 126, 126, 33, 33],
     [35, 35, 36, 36, 37, 37, 38, 38],
     [39, 39, 40, 40, 41, 41, 42, 42],
     [43, 43, 45, 45, 46, 46, 47, 47],
     [48, 52, 53, 53, 54, 57, 58, 58],
     [61, 61, 64, 64, 65, 90, 95, 95],
     [97, 122, 126, 126, 33, 33, 35, 35],
     [36, 36, 37, 37, 38, 38, 39, 39],
     [40, 40, 41, 41, 42, 42, 43, 43],
     [45, 45, 46, 46, 47, 47, 48, 53],
     [54, 57, 58, 58, 61, 61, 64, 64],
     [65, 90, 95, 95, 97, 122, 126, 126],
     [33, 33, 35, 35, 36, 36, 37, 37],
     [38, 38, 39, 39, 40, 40, 41, 41],
     [42, 42, 43, 43, 45, 45, 46, 46],
     [47, 47, 48, 57, 58, 58, 61, 61],
     [64, 64, 65, 90, 95, 95, 97, 122],
     [126, 126, 33, 33, 35, 35, 36, 36],
     [37, 37, 38, 38, 39, 39, 40, 40],
     [41, 41, 42, 42, 43, 43, 45, 45],
     [46, 46, 47, 47, 48, 57, 58, 58],
     [61, 61, 64, 64, 65, 90, 95, 95],
     [97, 122, 126, 126, 33, 33, 35, 35],
     [36, 36, 37, 37, 38, 38, 39, 39],
     [40, 40, 41, 41, 42, 42, 43, 43],
     [45, 45, 46, 46, 47, 47, 48, 52],
     [53, 53, 54, 57, 58, 58, 61, 61],
     [64, 64, 65, 90, 95, 95, 97, 122],
     [126, 126, 33, 33, 35, 35, 36, 36],
     [37, 37, 38, 38, 39, 39, 40, 40],
     [41, 41, 42, 42, 43, 43, 45, 45],
     [46, 46, 47, 47, 48, 53, 54, 57],
     [58, 58, 61, 61, 64, 64, 65, 90],
     [95, 95, 97, 122, 126, 126, 9, 9],
     [13, 13, 32, 32, 33, 33, 37, 37],
     [39, 39, 42, 42, 43, 43, 45, 45],
     [46, 46, 48, 57, 58, 58, 60, 60],
     [65, 90, 95, 95, 96, 96, 97, 122],
     [126, 126, 9, 9, 13, 13, 32, 32],
     [33, 33, 37, 37, 39, 39, 42, 42],
     [43, 43, 45, 45, 46, 46, 48, 57],
     [58, 58, 60, 60, 65, 68, 69, 69],
     [70, 90, 95, 95, 96, 96, 97, 100],
     [101, 101, 102, 122, 126, 126, 9, 9],
     [13, 13, 32, 32, 33, 33, 37, 37],
     [39, 39, 42, 42, 43, 43, 45, 45],
     [46, 46, 48, 57, 58, 58, 60, 60],
     [65, 75, 76, 76, 77, 90, 95, 95],
     [96, 96, 97, 107, 108, 108, 109, 122],
     [126, 126, 9, 9, 13, 13, 32, 32],
     [33, 33, 37, 37, 39, 39, 42, 42],
     [43, 43, 45, 45, 46, 46, 48, 57],
     [58, 58, 60, 60, 65, 90, 95, 95],
     [96, 96, 97, 122, 126, 126, 35, 35],
     [40, 40, 41, 41, 42, 42, 43, 43],
     [45, 45, 46, 46, 48, 57, 65, 65],
     [66, 66, 67, 67, 68, 68, 69, 69],
     [70, 70, 97, 97, 98, 98, 99, 99],
     [100, 100, 101, 101, 102, 102, 9, 9],
     [13, 13, 32, 32, 35, 35, 40, 40],
     [41, 41, 42, 42, 45, 45, 46, 46],
     [48, 57, 59, 59, 65, 65, 66, 66],
     [67, 67, 68, 68, 69, 69, 70, 70],
     [97, 97, 98, 98, 99, 99, 100, 100],
     [101, 101, 102, 102, 35, 35, 40, 40],
     [41, 41, 42, 42, 45, 45, 46, 46],
     [48, 57, 65, 65, 66, 66, 67, 67],
     [68, 68, 69, 69, 70, 70, 97, 97],
     [98, 98, 99, 99, 100, 100, 101, 101],
     [102, 102, 40, 40, 41, 41, 45, 45],
     [46, 46, 48, 57, 9, 9, 13, 13],
     [32, 32, 40, 40, 41, 41, 45, 45],
     [46, 46, 48, 57, 59, 59, 9, 9],
     [13, 13, 32, 32, 33, 33, 37, 37]]"

definition sup_cond_keys_59 :: "int list list" where
  "sup_cond_keys_59 =
    [[39, 39, 42, 42, 43, 43, 45, 45],
     [46, 46, 48, 57, 58, 58, 60, 60],
     [65, 90, 95, 95, 96, 96, 97, 122],
     [126, 126, 9, 9, 13, 13, 32, 32],
     [33, 33, 35, 35, 36, 36, 37, 37],
     [38, 38, 39, 39, 40, 40, 41, 41],
     [42, 42, 43, 43, 44, 44, 45, 45],
     [46, 46, 47, 47, 48, 48, 49, 49],
     [50, 50, 51, 57, 58, 58, 59, 59],
     [61, 61, 63, 63, 64, 64, 65, 90],
     [91, 91, 95, 95, 97, 122, 126, 126],
     [9, 9, 13, 13, 32, 32, 33, 33],
     [35, 35, 36, 36, 37, 37, 38, 38],
     [39, 39, 40, 40, 41, 41, 42, 42],
     [43, 43, 44, 44, 45, 45, 46, 46],
     [47, 47, 48, 57, 58, 58, 59, 59],
     [61, 61, 63, 63, 64, 64, 65, 90],
     [95, 95, 97, 122, 126, 126, 33, 33],
     [35, 35, 36, 36, 37, 37, 38, 38],
     [39, 39, 40, 40, 41, 41, 42, 42],
     [43, 43, 44, 44, 45, 45, 46, 46],
     [47, 47, 48, 57, 58, 58, 59, 59],
     [61, 61, 63, 63, 64, 64, 65, 90],
     [95, 95, 97, 122, 126, 126, 48, 57],
     [65, 65, 66, 66, 67, 67, 68, 68],
     [69, 69, 70, 70, 97, 97, 98, 98],
     [99, 99, 100, 100, 101, 101, 102, 102],
     [48, 57, 65, 65, 66, 66, 67, 67],
     [68, 68, 69, 69, 70, 70, 97, 97],
     [98, 98, 99, 99, 100, 100, 101, 101],
     [102, 102, 33, 33, 36, 36, 37, 37],
     [38, 38, 39, 39, 40, 40, 41, 41],
     [42, 42, 43, 43, 44, 44, 45, 45],
     [46, 46, 48, 57, 61, 61, 64, 64],
     [65, 90, 95, 95, 97, 122, 126, 126],
     [48, 57, 65, 65, 66, 66, 67, 67],
     [68, 68, 69, 69, 70, 70, 97, 97],
     [98, 98, 99, 99, 100, 100, 101, 101],
     [102, 102, 48, 57, 65, 65, 66, 66],
     [67, 67, 68, 68, 69, 69, 70, 70],
     [97, 97, 98, 98, 99, 99, 100, 100],
     [101, 101, 102, 102, 48, 48, 49, 49],
     [50, 50, 51, 57, 65, 90, 91, 91],
     [97, 122, 45, 45, 46, 46, 48, 57],
     [65, 90, 95, 95, 97, 122, 45, 45],
     [48, 57, 65, 90, 95, 95, 97, 122],
     [45, 45, 46, 46, 48, 57, 65, 90],
     [95, 95, 97, 122, 48, 57, 65, 90],
     [97, 122, 9, 9, 13, 13, 32, 32],
     [45, 45, 46, 46, 48, 57, 58, 58],
     [59, 59, 63, 63, 65, 90, 95, 95],
     [97, 122, 45, 45, 48, 57, 65, 90],
     [95, 95, 97, 122, 9, 9, 13, 13],
     [32, 32, 48, 57, 58, 58, 59, 59],
     [63, 63, 65, 90, 97, 122, 48, 48],
     [49, 53, 54, 54, 55, 57, 48, 48],
     [49, 57, 48, 48, 49, 57, 49, 57],
     [9, 9, 13, 13, 32, 32, 59, 59],
     [63, 63, 9, 9, 13, 13, 32, 32],
     [48, 57, 59, 59, 63, 63, 9, 9],
     [13, 13, 32, 32, 48, 57, 59, 59],
     [63, 63, 9, 9, 13, 13, 32, 32],
     [48, 57, 59, 59, 63, 63, 9, 9],
     [13, 13, 32, 32, 48, 57, 59, 59],
     [63, 63, 9, 9, 13, 13, 32, 32],
     [48, 52, 53, 53, 54, 57, 59, 59],
     [63, 63, 9, 9, 13, 13, 32, 32],
     [48, 52, 53, 53, 54, 57, 59, 59],
     [63, 63, 9, 9, 13, 13, 32, 32],
     [48, 50, 51, 51, 52, 57, 59, 59],
     [63, 63, 9, 9, 13, 13, 32, 32],
     [48, 53, 59, 59, 63, 63, 48, 48],
     [49, 49, 50, 50, 51, 57, 65, 90],
     [97, 122, 45, 45, 46, 46, 48, 57],
     [65, 90, 95, 95, 97, 122, 48, 48],
     [49, 49, 50, 50, 51, 57, 65, 90],
     [97, 122, 45, 45, 46, 46, 48, 57],
     [65, 90, 95, 95, 97, 122, 48, 48],
     [49, 49, 50, 50, 51, 57, 65, 90],
     [97, 122, 9, 9, 13, 13, 32, 32],
     [45, 45, 46, 46, 48, 57, 58, 58],
     [59, 59, 63, 63, 65, 90, 95, 95],
     [97, 122, 9, 9, 13, 13, 32, 32],
     [45, 45, 46, 46, 48, 57, 58, 58],
     [59, 59, 63, 63, 65, 90, 95, 95],
     [97, 122, 9, 9, 13, 13, 32, 32],
     [45, 45, 46, 46, 48, 57, 58, 58],
     [59, 59, 63, 63, 65, 90, 95, 95],
     [97, 122, 9, 9, 13, 13, 32, 32],
     [45, 45, 46, 46, 48, 52, 53, 53],
     [54, 57, 58, 58, 59, 59, 63, 63],
     [65, 90, 95, 95, 97, 122, 9, 9],
     [13, 13, 32, 32, 45, 45, 46, 46],
     [48, 53, 54, 57, 58, 58, 59, 59],
     [63, 63, 65, 90, 95, 95, 97, 122],
     [45, 45, 46, 46, 48, 57, 65, 90],
     [95, 95, 97, 122, 45, 45, 46, 46],
     [48, 57, 65, 90, 95, 95, 97, 122],
     [45, 45, 46, 46, 48, 52, 53, 53],
     [54, 57, 65, 90, 95, 95, 97, 122],
     [45, 45, 46, 46, 48, 53, 54, 57],
     [65, 90, 95, 95, 97, 122, 45, 45],
     [46, 46, 48, 57, 65, 90, 95, 95],
     [97, 122, 45, 45, 46, 46, 48, 57],
     [65, 90, 95, 95, 97, 122, 45, 45],
     [46, 46, 48, 52, 53, 53, 54, 57],
     [65, 90, 95, 95, 97, 122, 45, 45],
     [46, 46, 48, 53, 54, 57, 65, 90],
     [95, 95, 97, 122, 45, 45, 46, 46],
     [48, 57, 65, 90, 95, 95, 97, 122],
     [45, 45, 46, 46, 48, 57, 65, 90],
     [95, 95, 97, 122, 45, 45, 46, 46],
     [48, 52, 53, 53, 54, 57, 65, 90],
     [95, 95, 97, 122, 45, 45, 46, 46],
     [48, 53, 54, 57, 65, 90, 95, 95],
     [97, 122, 48, 57, 58, 58, 65, 65],
     [66, 66, 67, 67, 68, 68, 69, 69],
     [70, 70, 97, 97, 98, 98, 99, 99],
     [100, 100, 101, 101, 102, 102, 48, 57],
     [58, 58, 65, 65, 66, 66, 67, 67],
     [68, 68, 69, 69, 70, 70, 97, 97],
     [98, 98, 99, 99, 100, 100, 101, 101],
     [102, 102, 48, 57, 58, 58, 65, 65],
     [66, 66, 67, 67, 68, 68, 69, 69],
     [70, 70, 97, 97, 98, 98, 99, 99],
     [100, 100, 101, 101, 102, 102, 48, 57],
     [58, 58, 65, 65, 66, 66, 67, 67],
     [68, 68, 69, 69, 70, 70, 97, 97],
     [98, 98, 99, 99, 100, 100, 101, 101],
     [102, 102, 58, 58, 48, 57, 58, 58],
     [65, 65, 66, 66, 67, 67, 68, 68],
     [69, 69, 70, 70, 97, 97, 98, 98],
     [99, 99, 100, 100, 101, 101, 102, 102],
     [48, 57, 58, 58, 65, 65, 66, 66],
     [67, 67, 68, 68, 69, 69, 70, 70],
     [97, 97, 98, 98, 99, 99, 100, 100],
     [101, 101, 102, 102, 48, 57, 58, 58],
     [65, 65, 66, 66, 67, 67, 68, 68],
     [69, 69, 70, 70, 97, 97, 98, 98],
     [99, 99, 100, 100, 101, 101, 102, 102],
     [48, 57, 58, 58, 65, 65, 66, 66],
     [67, 67, 68, 68, 69, 69, 70, 70],
     [97, 97, 98, 98, 99, 99, 100, 100],
     [101, 101, 102, 102, 58, 58, 48, 57],
     [58, 58, 65, 65, 66, 66, 67, 67],
     [68, 68, 69, 69, 70, 70, 97, 97],
     [98, 98, 99, 99, 100, 100, 101, 101],
     [102, 102, 48, 57, 58, 58, 65, 65],
     [66, 66, 67, 67, 68, 68, 69, 69],
     [70, 70, 97, 97, 98, 98, 99, 99]]"

definition sup_cond_keys_60 :: "int list list" where
  "sup_cond_keys_60 =
    [[100, 100, 101, 101, 102, 102, 48, 57],
     [58, 58, 65, 65, 66, 66, 67, 67],
     [68, 68, 69, 69, 70, 70, 97, 97],
     [98, 98, 99, 99, 100, 100, 101, 101],
     [102, 102, 48, 57, 58, 58, 65, 65],
     [66, 66, 67, 67, 68, 68, 69, 69],
     [70, 70, 97, 97, 98, 98, 99, 99],
     [100, 100, 101, 101, 102, 102, 58, 58],
     [48, 57, 58, 58, 65, 65, 66, 66],
     [67, 67, 68, 68, 69, 69, 70, 70],
     [97, 97, 98, 98, 99, 99, 100, 100],
     [101, 101, 102, 102, 48, 57, 58, 58],
     [65, 65, 66, 66, 67, 67, 68, 68],
     [69, 69, 70, 70, 97, 97, 98, 98],
     [99, 99, 100, 100, 101, 101, 102, 102],
     [48, 57, 58, 58, 65, 65, 66, 66],
     [67, 67, 68, 68, 69, 69, 70, 70],
     [97, 97, 98, 98, 99, 99, 100, 100],
     [101, 101, 102, 102, 48, 57, 58, 58],
     [65, 65, 66, 66, 67, 67, 68, 68],
     [69, 69, 70, 70, 97, 97, 98, 98],
     [99, 99, 100, 100, 101, 101, 102, 102],
     [58, 58, 48, 57, 58, 58, 65, 65],
     [66, 66, 67, 67, 68, 68, 69, 69],
     [70, 70, 97, 97, 98, 98, 99, 99],
     [100, 100, 101, 101, 102, 102, 48, 57],
     [58, 58, 65, 65, 66, 66, 67, 67],
     [68, 68, 69, 69, 70, 70, 97, 97],
     [98, 98, 99, 99, 100, 100, 101, 101],
     [102, 102, 48, 57, 58, 58, 65, 65],
     [66, 66, 67, 67, 68, 68, 69, 69],
     [70, 70, 97, 97, 98, 98, 99, 99],
     [100, 100, 101, 101, 102, 102, 48, 57],
     [58, 58, 65, 65, 66, 66, 67, 67],
     [68, 68, 69, 69, 70, 70, 97, 97],
     [98, 98, 99, 99, 100, 100, 101, 101],
     [102, 102, 58, 58, 48, 57, 58, 58],
     [65, 65, 66, 66, 67, 67, 68, 68],
     [69, 69, 70, 70, 97, 97, 98, 98],
     [99, 99, 100, 100, 101, 101, 102, 102],
     [48, 57, 58, 58, 65, 65, 66, 66],
     [67, 67, 68, 68, 69, 69, 70, 70],
     [97, 97, 98, 98, 99, 99, 100, 100],
     [101, 101, 102, 102, 48, 57, 58, 58],
     [65, 65, 66, 66, 67, 67, 68, 68],
     [69, 69, 70, 70, 97, 97, 98, 98],
     [99, 99, 100, 100, 101, 101, 102, 102],
     [48, 57, 58, 58, 65, 65, 66, 66],
     [67, 67, 68, 68, 69, 69, 70, 70],
     [97, 97, 98, 98, 99, 99, 100, 100],
     [101, 101, 102, 102, 58, 58, 48, 48],
     [49, 49, 50, 50, 51, 57, 58, 58],
     [65, 65, 66, 66, 67, 67, 68, 68],
     [69, 69, 70, 70, 97, 97, 98, 98],
     [99, 99, 100, 100, 101, 101, 102, 102],
     [46, 46, 48, 57, 58, 58, 65, 65],
     [66, 66, 67, 67, 68, 68, 69, 69],
     [70, 70, 97, 97, 98, 98, 99, 99],
     [100, 100, 101, 101, 102, 102, 48, 48],
     [49, 49, 50, 50, 51, 57, 46, 46],
     [48, 48, 49, 49, 50, 50, 51, 57],
     [46, 46, 48, 48, 49, 49, 50, 50],
     [51, 57, 93, 93, 9, 9, 13, 13],
     [32, 32, 58, 58, 59, 59, 63, 63],
     [48, 57, 93, 93, 48, 57, 93, 93],
     [48, 52, 53, 53, 54, 57, 93, 93],
     [48, 53, 93, 93, 46, 46, 48, 57],
     [46, 46, 48, 57, 46, 46, 48, 52],
     [53, 53, 54, 57, 46, 46, 48, 53],
     [46, 46, 48, 57, 46, 46, 48, 57],
     [46, 46, 48, 52, 53, 53, 54, 57],
     [46, 46, 48, 53, 48, 57, 58, 58],
     [65, 65, 66, 66, 67, 67, 68, 68],
     [69, 69, 70, 70, 97, 97, 98, 98],
     [99, 99, 100, 100, 101, 101, 102, 102],
     [48, 57, 58, 58, 65, 65, 66, 66],
     [67, 67, 68, 68, 69, 69, 70, 70],
     [97, 97, 98, 98, 99, 99, 100, 100],
     [101, 101, 102, 102, 58, 58, 48, 57],
     [58, 58, 65, 65, 66, 66, 67, 67],
     [68, 68, 69, 69, 70, 70, 97, 97],
     [98, 98, 99, 99, 100, 100, 101, 101],
     [102, 102, 48, 57, 65, 65, 66, 66],
     [67, 67, 68, 68, 69, 69, 70, 70],
     [93, 93, 97, 97, 98, 98, 99, 99],
     [100, 100, 101, 101, 102, 102, 48, 57],
     [65, 65, 66, 66, 67, 67, 68, 68],
     [69, 69, 70, 70, 93, 93, 97, 97],
     [98, 98, 99, 99, 100, 100, 101, 101],
     [102, 102, 48, 57, 65, 65, 66, 66],
     [67, 67, 68, 68, 69, 69, 70, 70],
     [93, 93, 97, 97, 98, 98, 99, 99],
     [100, 100, 101, 101, 102, 102, 46, 46],
     [48, 57, 58, 58, 65, 65, 66, 66],
     [67, 67, 68, 68, 69, 69, 70, 70],
     [97, 97, 98, 98, 99, 99, 100, 100],
     [101, 101, 102, 102, 46, 46, 48, 57],
     [58, 58, 65, 65, 66, 66, 67, 67],
     [68, 68, 69, 69, 70, 70, 97, 97],
     [98, 98, 99, 99, 100, 100, 101, 101],
     [102, 102, 46, 46, 48, 57, 58, 58],
     [65, 65, 66, 66, 67, 67, 68, 68],
     [69, 69, 70, 70, 97, 97, 98, 98],
     [99, 99, 100, 100, 101, 101, 102, 102],
     [46, 46, 48, 52, 53, 53, 54, 57],
     [58, 58, 65, 65, 66, 66, 67, 67],
     [68, 68, 69, 69, 70, 70, 97, 97],
     [98, 98, 99, 99, 100, 100, 101, 101],
     [102, 102, 46, 46, 48, 53, 54, 57],
     [58, 58, 65, 65, 66, 66, 67, 67],
     [68, 68, 69, 69, 70, 70, 97, 97],
     [98, 98, 99, 99, 100, 100, 101, 101],
     [102, 102, 46, 46, 48, 57, 58, 58],
     [65, 65, 66, 66, 67, 67, 68, 68],
     [69, 69, 70, 70, 97, 97, 98, 98],
     [99, 99, 100, 100, 101, 101, 102, 102],
     [46, 46, 48, 57, 58, 58, 65, 65],
     [66, 66, 67, 67, 68, 68, 69, 69],
     [70, 70, 97, 97, 98, 98, 99, 99],
     [100, 100, 101, 101, 102, 102, 48, 57],
     [65, 65, 66, 66, 67, 67, 68, 68],
     [69, 69, 70, 70, 93, 93, 97, 97],
     [98, 98, 99, 99, 100, 100, 101, 101],
     [102, 102, 48, 57, 58, 58, 65, 65],
     [66, 66, 67, 67, 68, 68, 69, 69],
     [70, 70, 97, 97, 98, 98, 99, 99],
     [100, 100, 101, 101, 102, 102, 48, 48],
     [49, 49, 50, 50, 51, 57, 65, 65],
     [66, 66, 67, 67, 68, 68, 69, 69],
     [70, 70, 93, 93, 97, 97, 98, 98],
     [99, 99, 100, 100, 101, 101, 102, 102],
     [46, 46, 48, 57, 58, 58, 65, 65],
     [66, 66, 67, 67, 68, 68, 69, 69],
     [70, 70, 93, 93, 97, 97, 98, 98],
     [99, 99, 100, 100, 101, 101, 102, 102],
     [48, 57, 58, 58, 65, 65, 66, 66],
     [67, 67, 68, 68, 69, 69, 70, 70],
     [93, 93, 97, 97, 98, 98, 99, 99],
     [100, 100, 101, 101, 102, 102, 48, 57],
     [58, 58, 65, 65, 66, 66, 67, 67],
     [68, 68, 69, 69, 70, 70, 93, 93],
     [97, 97, 98, 98, 99, 99, 100, 100],
     [101, 101, 102, 102, 58, 58, 93, 93],
     [48, 57, 65, 65, 66, 66, 67, 67],
     [68, 68, 69, 69, 70, 70, 97, 97],
     [98, 98, 99, 99, 100, 100, 101, 101],
     [102, 102, 46, 46, 48, 57, 58, 58],
     [65, 65, 66, 66, 67, 67, 68, 68],
     [69, 69, 70, 70, 93, 93, 97, 97],
     [98, 98, 99, 99, 100, 100, 101, 101]]"

definition sup_cond_keys_61 :: "int list list" where
  "sup_cond_keys_61 =
    [[102, 102, 46, 46, 48, 57, 58, 58],
     [65, 65, 66, 66, 67, 67, 68, 68],
     [69, 69, 70, 70, 93, 93, 97, 97],
     [98, 98, 99, 99, 100, 100, 101, 101],
     [102, 102, 46, 46, 48, 57, 58, 58],
     [65, 65, 66, 66, 67, 67, 68, 68],
     [69, 69, 70, 70, 93, 93, 97, 97],
     [98, 98, 99, 99, 100, 100, 101, 101],
     [102, 102, 46, 46, 48, 52, 53, 53],
     [54, 57, 58, 58, 65, 65, 66, 66],
     [67, 67, 68, 68, 69, 69, 70, 70],
     [93, 93, 97, 97, 98, 98, 99, 99],
     [100, 100, 101, 101, 102, 102, 46, 46],
     [48, 53, 54, 57, 58, 58, 65, 65],
     [66, 66, 67, 67, 68, 68, 69, 69],
     [70, 70, 93, 93, 97, 97, 98, 98],
     [99, 99, 100, 100, 101, 101, 102, 102],
     [46, 46, 48, 57, 58, 58, 65, 65],
     [66, 66, 67, 67, 68, 68, 69, 69],
     [70, 70, 93, 93, 97, 97, 98, 98],
     [99, 99, 100, 100, 101, 101, 102, 102],
     [46, 46, 48, 57, 58, 58, 65, 65],
     [66, 66, 67, 67, 68, 68, 69, 69],
     [70, 70, 93, 93, 97, 97, 98, 98],
     [99, 99, 100, 100, 101, 101, 102, 102],
     [48, 57, 58, 58, 65, 65, 66, 66],
     [67, 67, 68, 68, 69, 69, 70, 70],
     [93, 93, 97, 97, 98, 98, 99, 99],
     [100, 100, 101, 101, 102, 102, 48, 48],
     [49, 49, 50, 50, 51, 57, 65, 65],
     [66, 66, 67, 67, 68, 68, 69, 69],
     [70, 70, 93, 93, 97, 97, 98, 98],
     [99, 99, 100, 100, 101, 101, 102, 102],
     [46, 46, 48, 57, 58, 58, 65, 65],
     [66, 66, 67, 67, 68, 68, 69, 69],
     [70, 70, 93, 93, 97, 97, 98, 98],
     [99, 99, 100, 100, 101, 101, 102, 102],
     [48, 57, 58, 58, 65, 65, 66, 66],
     [67, 67, 68, 68, 69, 69, 70, 70],
     [93, 93, 97, 97, 98, 98, 99, 99],
     [100, 100, 101, 101, 102, 102, 48, 57],
     [58, 58, 65, 65, 66, 66, 67, 67],
     [68, 68, 69, 69, 70, 70, 93, 93],
     [97, 97, 98, 98, 99, 99, 100, 100],
     [101, 101, 102, 102, 58, 58, 93, 93],
     [48, 48, 49, 49, 50, 50, 51, 57],
     [65, 65, 66, 66, 67, 67, 68, 68],
     [69, 69, 70, 70, 97, 97, 98, 98],
     [99, 99, 100, 100, 101, 101, 102, 102],
     [46, 46, 48, 57, 58, 58, 65, 65],
     [66, 66, 67, 67, 68, 68, 69, 69],
     [70, 70, 93, 93, 97, 97, 98, 98],
     [99, 99, 100, 100, 101, 101, 102, 102],
     [46, 46, 48, 57, 58, 58, 65, 65],
     [66, 66, 67, 67, 68, 68, 69, 69],
     [70, 70, 93, 93, 97, 97, 98, 98],
     [99, 99, 100, 100, 101, 101, 102, 102],
     [46, 46, 48, 57, 58, 58, 65, 65],
     [66, 66, 67, 67, 68, 68, 69, 69],
     [70, 70, 93, 93, 97, 97, 98, 98],
     [99, 99, 100, 100, 101, 101, 102, 102],
     [46, 46, 48, 52, 53, 53, 54, 57],
     [58, 58, 65, 65, 66, 66, 67, 67],
     [68, 68, 69, 69, 70, 70, 93, 93],
     [97, 97, 98, 98, 99, 99, 100, 100],
     [101, 101, 102, 102, 46, 46, 48, 53],
     [54, 57, 58, 58, 65, 65, 66, 66],
     [67, 67, 68, 68, 69, 69, 70, 70],
     [93, 93, 97, 97, 98, 98, 99, 99],
     [100, 100, 101, 101, 102, 102, 46, 46],
     [48, 57, 58, 58, 65, 65, 66, 66],
     [67, 67, 68, 68, 69, 69, 70, 70],
     [93, 93, 97, 97, 98, 98, 99, 99],
     [100, 100, 101, 101, 102, 102, 46, 46],
     [48, 57, 58, 58, 65, 65, 66, 66],
     [67, 67, 68, 68, 69, 69, 70, 70],
     [93, 93, 97, 97, 98, 98, 99, 99],
     [100, 100, 101, 101, 102, 102, 48, 57],
     [58, 58, 65, 65, 66, 66, 67, 67],
     [68, 68, 69, 69, 70, 70, 93, 93],
     [97, 97, 98, 98, 99, 99, 100, 100],
     [101, 101, 102, 102, 48, 48, 49, 49],
     [50, 50, 51, 57, 65, 65, 66, 66],
     [67, 67, 68, 68, 69, 69, 70, 70],
     [93, 93, 97, 97, 98, 98, 99, 99],
     [100, 100, 101, 101, 102, 102, 46, 46],
     [48, 57, 58, 58, 65, 65, 66, 66],
     [67, 67, 68, 68, 69, 69, 70, 70],
     [93, 93, 97, 97, 98, 98, 99, 99],
     [100, 100, 101, 101, 102, 102, 48, 57],
     [58, 58, 65, 65, 66, 66, 67, 67],
     [68, 68, 69, 69, 70, 70, 93, 93],
     [97, 97, 98, 98, 99, 99, 100, 100],
     [101, 101, 102, 102, 48, 57, 58, 58],
     [65, 65, 66, 66, 67, 67, 68, 68],
     [69, 69, 70, 70, 93, 93, 97, 97],
     [98, 98, 99, 99, 100, 100, 101, 101],
     [102, 102, 58, 58, 93, 93, 48, 48],
     [49, 49, 50, 50, 51, 57, 65, 65],
     [66, 66, 67, 67, 68, 68, 69, 69],
     [70, 70, 97, 97, 98, 98, 99, 99],
     [100, 100, 101, 101, 102, 102, 46, 46],
     [48, 57, 58, 58, 65, 65, 66, 66],
     [67, 67, 68, 68, 69, 69, 70, 70],
     [93, 93, 97, 97, 98, 98, 99, 99],
     [100, 100, 101, 101, 102, 102, 46, 46],
     [48, 57, 58, 58, 65, 65, 66, 66],
     [67, 67, 68, 68, 69, 69, 70, 70],
     [93, 93, 97, 97, 98, 98, 99, 99],
     [100, 100, 101, 101, 102, 102, 46, 46],
     [48, 57, 58, 58, 65, 65, 66, 66],
     [67, 67, 68, 68, 69, 69, 70, 70],
     [93, 93, 97, 97, 98, 98, 99, 99],
     [100, 100, 101, 101, 102, 102, 46, 46],
     [48, 52, 53, 53, 54, 57, 58, 58],
     [65, 65, 66, 66, 67, 67, 68, 68],
     [69, 69, 70, 70, 93, 93, 97, 97],
     [98, 98, 99, 99, 100, 100, 101, 101],
     [102, 102, 46, 46, 48, 53, 54, 57],
     [58, 58, 65, 65, 66, 66, 67, 67],
     [68, 68, 69, 69, 70, 70, 93, 93],
     [97, 97, 98, 98, 99, 99, 100, 100],
     [101, 101, 102, 102, 46, 46, 48, 57],
     [58, 58, 65, 65, 66, 66, 67, 67],
     [68, 68, 69, 69, 70, 70, 93, 93],
     [97, 97, 98, 98, 99, 99, 100, 100],
     [101, 101, 102, 102, 46, 46, 48, 57],
     [58, 58, 65, 65, 66, 66, 67, 67],
     [68, 68, 69, 69, 70, 70, 93, 93],
     [97, 97, 98, 98, 99, 99, 100, 100],
     [101, 101, 102, 102, 48, 57, 58, 58],
     [65, 65, 66, 66, 67, 67, 68, 68],
     [69, 69, 70, 70, 93, 93, 97, 97],
     [98, 98, 99, 99, 100, 100, 101, 101],
     [102, 102, 48, 48, 49, 49, 50, 50],
     [51, 57, 65, 65, 66, 66, 67, 67],
     [68, 68, 69, 69, 70, 70, 93, 93],
     [97, 97, 98, 98, 99, 99, 100, 100],
     [101, 101, 102, 102, 46, 46, 48, 57],
     [58, 58, 65, 65, 66, 66, 67, 67],
     [68, 68, 69, 69, 70, 70, 93, 93],
     [97, 97, 98, 98, 99, 99, 100, 100],
     [101, 101, 102, 102, 48, 57, 58, 58],
     [65, 65, 66, 66, 67, 67, 68, 68],
     [69, 69, 70, 70, 93, 93, 97, 97],
     [98, 98, 99, 99, 100, 100, 101, 101],
     [102, 102, 48, 57, 58, 58, 65, 65],
     [66, 66, 67, 67, 68, 68, 69, 69],
     [70, 70, 93, 93, 97, 97, 98, 98],
     [99, 99, 100, 100, 101, 101, 102, 102]]"

definition sup_cond_keys_62 :: "int list list" where
  "sup_cond_keys_62 =
    [[58, 58, 93, 93, 48, 48, 49, 49],
     [50, 50, 51, 57, 65, 65, 66, 66],
     [67, 67, 68, 68, 69, 69, 70, 70],
     [97, 97, 98, 98, 99, 99, 100, 100],
     [101, 101, 102, 102, 46, 46, 48, 57],
     [58, 58, 65, 65, 66, 66, 67, 67],
     [68, 68, 69, 69, 70, 70, 93, 93],
     [97, 97, 98, 98, 99, 99, 100, 100],
     [101, 101, 102, 102, 46, 46, 48, 57],
     [58, 58, 65, 65, 66, 66, 67, 67],
     [68, 68, 69, 69, 70, 70, 93, 93],
     [97, 97, 98, 98, 99, 99, 100, 100],
     [101, 101, 102, 102, 46, 46, 48, 57],
     [58, 58, 65, 65, 66, 66, 67, 67],
     [68, 68, 69, 69, 70, 70, 93, 93],
     [97, 97, 98, 98, 99, 99, 100, 100],
     [101, 101, 102, 102, 46, 46, 48, 52],
     [53, 53, 54, 57, 58, 58, 65, 65],
     [66, 66, 67, 67, 68, 68, 69, 69],
     [70, 70, 93, 93, 97, 97, 98, 98],
     [99, 99, 100, 100, 101, 101, 102, 102],
     [46, 46, 48, 53, 54, 57, 58, 58],
     [65, 65, 66, 66, 67, 67, 68, 68],
     [69, 69, 70, 70, 93, 93, 97, 97],
     [98, 98, 99, 99, 100, 100, 101, 101],
     [102, 102, 46, 46, 48, 57, 58, 58],
     [65, 65, 66, 66, 67, 67, 68, 68],
     [69, 69, 70, 70, 93, 93, 97, 97],
     [98, 98, 99, 99, 100, 100, 101, 101],
     [102, 102, 46, 46, 48, 57, 58, 58],
     [65, 65, 66, 66, 67, 67, 68, 68],
     [69, 69, 70, 70, 93, 93, 97, 97],
     [98, 98, 99, 99, 100, 100, 101, 101],
     [102, 102, 48, 57, 58, 58, 65, 65],
     [66, 66, 67, 67, 68, 68, 69, 69],
     [70, 70, 93, 93, 97, 97, 98, 98],
     [99, 99, 100, 100, 101, 101, 102, 102],
     [48, 48, 49, 49, 50, 50, 51, 57],
     [65, 65, 66, 66, 67, 67, 68, 68],
     [69, 69, 70, 70, 93, 93, 97, 97],
     [98, 98, 99, 99, 100, 100, 101, 101],
     [102, 102, 46, 46, 48, 57, 58, 58],
     [65, 65, 66, 66, 67, 67, 68, 68],
     [69, 69, 70, 70, 93, 93, 97, 97],
     [98, 98, 99, 99, 100, 100, 101, 101],
     [102, 102, 48, 57, 58, 58, 65, 65],
     [66, 66, 67, 67, 68, 68, 69, 69],
     [70, 70, 93, 93, 97, 97, 98, 98],
     [99, 99, 100, 100, 101, 101, 102, 102],
     [48, 57, 58, 58, 65, 65, 66, 66],
     [67, 67, 68, 68, 69, 69, 70, 70],
     [93, 93, 97, 97, 98, 98, 99, 99],
     [100, 100, 101, 101, 102, 102, 58, 58],
     [93, 93, 48, 48, 49, 49, 50, 50],
     [51, 57, 65, 65, 66, 66, 67, 67],
     [68, 68, 69, 69, 70, 70, 97, 97],
     [98, 98, 99, 99, 100, 100, 101, 101],
     [102, 102, 46, 46, 48, 57, 58, 58],
     [65, 65, 66, 66, 67, 67, 68, 68],
     [69, 69, 70, 70, 93, 93, 97, 97],
     [98, 98, 99, 99, 100, 100, 101, 101],
     [102, 102, 46, 46, 48, 57, 58, 58],
     [65, 65, 66, 66, 67, 67, 68, 68],
     [69, 69, 70, 70, 93, 93, 97, 97],
     [98, 98, 99, 99, 100, 100, 101, 101],
     [102, 102, 46, 46, 48, 57, 58, 58],
     [65, 65, 66, 66, 67, 67, 68, 68],
     [69, 69, 70, 70, 93, 93, 97, 97],
     [98, 98, 99, 99, 100, 100, 101, 101],
     [102, 102, 46, 46, 48, 52, 53, 53],
     [54, 57, 58, 58, 65, 65, 66, 66],
     [67, 67, 68, 68, 69, 69, 70, 70],
     [93, 93, 97, 97, 98, 98, 99, 99],
     [100, 100, 101, 101, 102, 102, 46, 46],
     [48, 53, 54, 57, 58, 58, 65, 65],
     [66, 66, 67, 67, 68, 68, 69, 69],
     [70, 70, 93, 93, 97, 97, 98, 98],
     [99, 99, 100, 100, 101, 101, 102, 102],
     [46, 46, 48, 57, 58, 58, 65, 65],
     [66, 66, 67, 67, 68, 68, 69, 69],
     [70, 70, 93, 93, 97, 97, 98, 98],
     [99, 99, 100, 100, 101, 101, 102, 102],
     [46, 46, 48, 57, 58, 58, 65, 65],
     [66, 66, 67, 67, 68, 68, 69, 69],
     [70, 70, 93, 93, 97, 97, 98, 98],
     [99, 99, 100, 100, 101, 101, 102, 102],
     [48, 57, 58, 58, 65, 65, 66, 66],
     [67, 67, 68, 68, 69, 69, 70, 70],
     [93, 93, 97, 97, 98, 98, 99, 99],
     [100, 100, 101, 101, 102, 102, 58, 58],
     [48, 48, 49, 49, 50, 50, 51, 57],
     [65, 65, 66, 66, 67, 67, 68, 68],
     [69, 69, 70, 70, 93, 93, 97, 97],
     [98, 98, 99, 99, 100, 100, 101, 101],
     [102, 102, 46, 46, 48, 57, 58, 58],
     [65, 65, 66, 66, 67, 67, 68, 68],
     [69, 69, 70, 70, 93, 93, 97, 97],
     [98, 98, 99, 99, 100, 100, 101, 101],
     [102, 102, 48, 57, 58, 58, 65, 65],
     [66, 66, 67, 67, 68, 68, 69, 69],
     [70, 70, 93, 93, 97, 97, 98, 98],
     [99, 99, 100, 100, 101, 101, 102, 102],
     [48, 57, 58, 58, 65, 65, 66, 66],
     [67, 67, 68, 68, 69, 69, 70, 70],
     [93, 93, 97, 97, 98, 98, 99, 99],
     [100, 100, 101, 101, 102, 102, 58, 58],
     [93, 93, 48, 48, 49, 49, 50, 50],
     [51, 57, 65, 65, 66, 66, 67, 67],
     [68, 68, 69, 69, 70, 70, 97, 97],
     [98, 98, 99, 99, 100, 100, 101, 101],
     [102, 102, 46, 46, 48, 57, 58, 58],
     [65, 65, 66, 66, 67, 67, 68, 68],
     [69, 69, 70, 70, 93, 93, 97, 97],
     [98, 98, 99, 99, 100, 100, 101, 101],
     [102, 102, 46, 46, 48, 57, 58, 58],
     [65, 65, 66, 66, 67, 67, 68, 68],
     [69, 69, 70, 70, 93, 93, 97, 97],
     [98, 98, 99, 99, 100, 100, 101, 101],
     [102, 102, 46, 46, 48, 57, 58, 58],
     [65, 65, 66, 66, 67, 67, 68, 68],
     [69, 69, 70, 70, 93, 93, 97, 97],
     [98, 98, 99, 99, 100, 100, 101, 101],
     [102, 102, 46, 46, 48, 52, 53, 53],
     [54, 57, 58, 58, 65, 65, 66, 66],
     [67, 67, 68, 68, 69, 69, 70, 70],
     [93, 93, 97, 97, 98, 98, 99, 99],
     [100, 100, 101, 101, 102, 102, 46, 46],
     [48, 53, 54, 57, 58, 58, 65, 65],
     [66, 66, 67, 67, 68, 68, 69, 69],
     [70, 70, 93, 93, 97, 97, 98, 98],
     [99, 99, 100, 100, 101, 101, 102, 102],
     [46, 46, 48, 57, 58, 58, 65, 65],
     [66, 66, 67, 67, 68, 68, 69, 69],
     [70, 70, 93, 93, 97, 97, 98, 98],
     [99, 99, 100, 100, 101, 101, 102, 102],
     [46, 46, 48, 57, 58, 58, 65, 65],
     [66, 66, 67, 67, 68, 68, 69, 69],
     [70, 70, 93, 93, 97, 97, 98, 98],
     [99, 99, 100, 100, 101, 101, 102, 102],
     [48, 57, 58, 58, 65, 65, 66, 66],
     [67, 67, 68, 68, 69, 69, 70, 70],
     [93, 93, 97, 97, 98, 98, 99, 99],
     [100, 100, 101, 101, 102, 102, 48, 57],
     [65, 65, 66, 66, 67, 67, 68, 68],
     [69, 69, 70, 70, 97, 97, 98, 98],
     [99, 99, 100, 100, 101, 101, 102, 102],
     [48, 57, 65, 65, 66, 66, 67, 67],
     [68, 68, 69, 69, 70, 70, 97, 97],
     [98, 98, 99, 99, 100, 100, 101, 101],
     [102, 102, 9, 9, 13, 13, 32, 32]]"

definition sup_cond_keys_63 :: "int list list" where
  "sup_cond_keys_63 =
    [[33, 33, 36, 36, 37, 37, 38, 38],
     [39, 39, 40, 40, 41, 41, 42, 42],
     [43, 43, 44, 44, 45, 45, 46, 46],
     [47, 47, 48, 57, 58, 58, 59, 59],
     [61, 61, 63, 63, 64, 64, 65, 90],
     [95, 95, 97, 122, 126, 126, 48, 57],
     [65, 65, 66, 66, 67, 67, 68, 68],
     [69, 69, 70, 70, 97, 97, 98, 98],
     [99, 99, 100, 100, 101, 101, 102, 102],
     [48, 57, 65, 65, 66, 66, 67, 67],
     [68, 68, 69, 69, 70, 70, 97, 97],
     [98, 98, 99, 99, 100, 100, 101, 101],
     [102, 102, 9, 9, 13, 13, 32, 32],
     [33, 33, 36, 36, 37, 37, 38, 38],
     [39, 39, 40, 40, 41, 41, 42, 42],
     [43, 43, 44, 44, 45, 45, 46, 46],
     [47, 47, 48, 57, 58, 58, 59, 59],
     [61, 61, 63, 63, 64, 64, 65, 90],
     [95, 95, 97, 122, 126, 126, 48, 57],
     [65, 65, 66, 66, 67, 67, 68, 68],
     [69, 69, 70, 70, 97, 97, 98, 98],
     [99, 99, 100, 100, 101, 101, 102, 102],
     [48, 57, 65, 65, 66, 66, 67, 67],
     [68, 68, 69, 69, 70, 70, 97, 97],
     [98, 98, 99, 99, 100, 100, 101, 101],
     [102, 102, 9, 9, 13, 13, 32, 32],
     [33, 33, 36, 36, 37, 37, 38, 38],
     [39, 39, 40, 40, 41, 41, 42, 42],
     [43, 43, 44, 44, 45, 45, 46, 46],
     [47, 47, 48, 57, 58, 58, 59, 59],
     [61, 61, 63, 63, 64, 64, 65, 90],
     [95, 95, 96, 96, 97, 122, 126, 126],
     [9, 9, 13, 13, 32, 32, 33, 33],
     [36, 36, 37, 37, 38, 38, 39, 39],
     [40, 40, 41, 41, 42, 42, 43, 43],
     [44, 44, 45, 45, 46, 46, 47, 47],
     [48, 57, 58, 58, 59, 59, 61, 61],
     [63, 63, 64, 64, 65, 90, 95, 95],
     [96, 96, 97, 122, 126, 126, 9, 9],
     [13, 13, 32, 32, 33, 33, 37, 37],
     [39, 39, 42, 42, 43, 43, 45, 45],
     [46, 46, 48, 57, 59, 59, 61, 61],
     [65, 65, 66, 66, 67, 67, 68, 68],
     [69, 69, 70, 70, 71, 90, 95, 95],
     [96, 96, 97, 97, 98, 98, 99, 99],
     [100, 100, 101, 101, 102, 102, 103, 122],
     [126, 126, 9, 9, 13, 13, 32, 32],
     [33, 33, 37, 37, 39, 39, 42, 42],
     [43, 43, 45, 45, 46, 46, 48, 57],
     [59, 59, 61, 61, 65, 65, 66, 66],
     [67, 67, 68, 68, 69, 69, 70, 70],
     [71, 90, 95, 95, 96, 96, 97, 97],
     [98, 98, 99, 99, 100, 100, 101, 101],
     [102, 102, 103, 122, 126, 126, 9, 9],
     [13, 13, 32, 32, 33, 33, 34, 34],
     [36, 36, 37, 37, 38, 38, 39, 39],
     [40, 40, 41, 41, 42, 42, 43, 43],
     [44, 44, 45, 45, 46, 46, 47, 47],
     [48, 48, 49, 49, 50, 50, 51, 57],
     [58, 58, 59, 59, 61, 61, 63, 63],
     [64, 64, 65, 90, 91, 91, 95, 95],
     [96, 96, 97, 122, 126, 126, 9, 9],
     [13, 13, 32, 32, 33, 33, 36, 36],
     [37, 37, 38, 38, 39, 39, 40, 40],
     [41, 41, 42, 42, 43, 43, 44, 44],
     [45, 45, 46, 46, 47, 47, 48, 57],
     [58, 58, 59, 59, 61, 61, 63, 63],
     [64, 64, 65, 90, 95, 95, 96, 96],
     [97, 122, 126, 126, 9, 9, 13, 13],
     [32, 32, 33, 33, 37, 37, 39, 39],
     [42, 42, 43, 43, 45, 45, 46, 46],
     [48, 57, 59, 59, 65, 65, 66, 66],
     [67, 67, 68, 68, 69, 69, 70, 70],
     [71, 90, 95, 95, 96, 96, 97, 97],
     [98, 98, 99, 99, 100, 100, 101, 101],
     [102, 102, 103, 122, 126, 126, 9, 9],
     [13, 13, 32, 32, 33, 33, 37, 37],
     [39, 39, 42, 42, 43, 43, 45, 45],
     [46, 46, 48, 57, 59, 59, 65, 65],
     [66, 66, 67, 67, 68, 68, 69, 69],
     [70, 70, 71, 90, 95, 95, 96, 96],
     [97, 97, 98, 98, 99, 99, 100, 100],
     [101, 101, 102, 102, 103, 122, 126, 126],
     [9, 9, 13, 13, 32, 32, 33, 33],
     [36, 36, 37, 37, 38, 38, 39, 39],
     [40, 40, 41, 41, 42, 42, 43, 43],
     [44, 44, 45, 45, 46, 46, 47, 47],
     [48, 48, 49, 49, 50, 50, 51, 57],
     [58, 58, 59, 59, 61, 61, 63, 63],
     [64, 64, 65, 90, 91, 91, 95, 95],
     [97, 122, 126, 126, 9, 9, 13, 13],
     [32, 32, 33, 33, 35, 35, 36, 36],
     [37, 37, 38, 38, 39, 39, 40, 40],
     [41, 41, 42, 42, 43, 43, 44, 44],
     [45, 45, 46, 46, 47, 47, 48, 57],
     [58, 58, 59, 59, 61, 61, 63, 63],
     [64, 64, 65, 90, 95, 95, 96, 96],
     [97, 122, 126, 126, 9, 9, 13, 13],
     [32, 32, 33, 33, 35, 35, 36, 36],
     [37, 37, 38, 38, 39, 39, 40, 40],
     [41, 41, 42, 42, 43, 43, 44, 44],
     [45, 45, 46, 46, 47, 47, 48, 57],
     [58, 58, 59, 59, 61, 61, 63, 63],
     [64, 64, 65, 90, 95, 95, 96, 96],
     [97, 122, 126, 126, 9, 9, 13, 13],
     [32, 32, 33, 33, 37, 37, 39, 39],
     [42, 42, 43, 43, 45, 45, 46, 46],
     [48, 57, 59, 59, 61, 61, 65, 65],
     [66, 66, 67, 67, 68, 68, 69, 69],
     [70, 70, 71, 90, 95, 95, 96, 96],
     [97, 97, 98, 98, 99, 99, 100, 100],
     [101, 101, 102, 102, 103, 122, 126, 126],
     [9, 9, 13, 13, 32, 32, 33, 33],
     [37, 37, 39, 39, 42, 42, 43, 43],
     [45, 45, 46, 46, 48, 57, 59, 59],
     [61, 61, 65, 65, 66, 66, 67, 67],
     [68, 68, 69, 69, 70, 70, 71, 90],
     [95, 95, 96, 96, 97, 97, 98, 98],
     [99, 99, 100, 100, 101, 101, 102, 102],
     [103, 122, 126, 126, 9, 9, 13, 13],
     [32, 32, 33, 33, 34, 34, 35, 35],
     [36, 36, 37, 37, 38, 38, 39, 39],
     [40, 40, 41, 41, 42, 42, 43, 43],
     [44, 44, 45, 45, 46, 46, 47, 47],
     [48, 48, 49, 49, 50, 50, 51, 57],
     [58, 58, 59, 59, 61, 61, 63, 63],
     [64, 64, 65, 90, 91, 91, 95, 95],
     [96, 96, 97, 122, 126, 126, 9, 9],
     [13, 13, 32, 32, 33, 33, 35, 35],
     [36, 36, 37, 37, 38, 38, 39, 39],
     [40, 40, 41, 41, 42, 42, 43, 43],
     [44, 44, 45, 45, 46, 46, 47, 47],
     [48, 57, 58, 58, 59, 59, 61, 61],
     [63, 63, 64, 64, 65, 90, 95, 95],
     [96, 96, 97, 122, 126, 126, 9, 9],
     [13, 13, 32, 32, 33, 33, 37, 37],
     [39, 39, 42, 42, 43, 43, 45, 45],
     [46, 46, 48, 57, 59, 59, 65, 65],
     [66, 66, 67, 67, 68, 68, 69, 69],
     [70, 70, 71, 90, 95, 95, 96, 96],
     [97, 97, 98, 98, 99, 99, 100, 100],
     [101, 101, 102, 102, 103, 122, 126, 126],
     [9, 9, 13, 13, 32, 32, 33, 33],
     [37, 37, 39, 39, 42, 42, 43, 43],
     [45, 45, 46, 46, 48, 57, 59, 59],
     [65, 65, 66, 66, 67, 67, 68, 68],
     [69, 69, 70, 70, 71, 90, 95, 95],
     [96, 96, 97, 97, 98, 98, 99, 99],
     [100, 100, 101, 101, 102, 102, 103, 122],
     [126, 126, 9, 9, 13, 13, 32, 32]]"

definition sup_cond_keys_64 :: "int list list" where
  "sup_cond_keys_64 =
    [[33, 33, 35, 35, 36, 36, 37, 37],
     [38, 38, 39, 39, 40, 40, 41, 41],
     [42, 42, 43, 43, 44, 44, 45, 45],
     [46, 46, 47, 47, 48, 57, 58, 58],
     [59, 59, 61, 61, 63, 63, 64, 64],
     [65, 90, 95, 95, 97, 122, 126, 126],
     [9, 9, 13, 13, 32, 32, 33, 33],
     [35, 35, 36, 36, 37, 37, 38, 38],
     [39, 39, 40, 40, 41, 41, 42, 42],
     [43, 43, 44, 44, 45, 45, 46, 46],
     [47, 47, 48, 48, 49, 49, 50, 50],
     [51, 57, 58, 58, 59, 59, 61, 61],
     [63, 63, 64, 64, 65, 90, 91, 91],
     [95, 95, 97, 122, 126, 126, 9, 9],
     [13, 13, 32, 32, 33, 33, 35, 35],
     [36, 36, 37, 37, 38, 38, 39, 39],
     [40, 40, 41, 41, 42, 42, 43, 43],
     [44, 44, 45, 45, 46, 46, 47, 47],
     [48, 57, 58, 58, 59, 59, 61, 61],
     [63, 63, 64, 64, 65, 90, 95, 95],
     [97, 122, 126, 126, 33, 33, 35, 35],
     [36, 36, 37, 37, 38, 38, 39, 39],
     [40, 40, 41, 41, 42, 42, 43, 43],
     [44, 44, 45, 45, 46, 46, 47, 47],
     [48, 57, 58, 58, 59, 59, 61, 61],
     [63, 63, 64, 64, 65, 90, 95, 95],
     [97, 122, 126, 126, 48, 57, 65, 65],
     [66, 66, 67, 67, 68, 68, 69, 69],
     [70, 70, 97, 97, 98, 98, 99, 99],
     [100, 100, 101, 101, 102, 102, 48, 57],
     [65, 65, 66, 66, 67, 67, 68, 68],
     [69, 69, 70, 70, 97, 97, 98, 98],
     [99, 99, 100, 100, 101, 101, 102, 102],
     [33, 33, 36, 36, 37, 37, 38, 38],
     [39, 39, 40, 40, 41, 41, 42, 42],
     [43, 43, 44, 44, 45, 45, 46, 46],
     [48, 57, 61, 61, 64, 64, 65, 90],
     [95, 95, 97, 122, 126, 126, 48, 57],
     [65, 65, 66, 66, 67, 67, 68, 68],
     [69, 69, 70, 70, 97, 97, 98, 98],
     [99, 99, 100, 100, 101, 101, 102, 102],
     [48, 57, 65, 65, 66, 66, 67, 67],
     [68, 68, 69, 69, 70, 70, 97, 97],
     [98, 98, 99, 99, 100, 100, 101, 101],
     [102, 102, 48, 48, 49, 49, 50, 50],
     [51, 57, 65, 90, 91, 91, 97, 122],
     [45, 45, 46, 46, 48, 57, 65, 90],
     [95, 95, 97, 122, 45, 45, 48, 57],
     [65, 90, 95, 95, 97, 122, 45, 45],
     [46, 46, 48, 57, 65, 90, 95, 95],
     [97, 122, 48, 57, 65, 90, 97, 122],
     [9, 9, 13, 13, 32, 32, 45, 45],
     [46, 46, 47, 47, 48, 57, 58, 58],
     [59, 59, 63, 63, 65, 90, 95, 95],
     [97, 122, 45, 45, 48, 57, 65, 90],
     [95, 95, 97, 122, 9, 9, 13, 13],
     [32, 32, 47, 47, 48, 57, 58, 58],
     [59, 59, 63, 63, 65, 90, 97, 122],
     [48, 48, 49, 53, 54, 54, 55, 57],
     [48, 48, 49, 57, 48, 48, 49, 57],
     [49, 57, 9, 9, 13, 13, 32, 32],
     [47, 47, 59, 59, 63, 63, 9, 9],
     [13, 13, 32, 32, 47, 47, 48, 57],
     [59, 59, 63, 63, 9, 9, 13, 13],
     [32, 32, 47, 47, 48, 57, 59, 59],
     [63, 63, 9, 9, 13, 13, 32, 32],
     [47, 47, 48, 57, 59, 59, 63, 63],
     [9, 9, 13, 13, 32, 32, 47, 47],
     [48, 57, 59, 59, 63, 63, 9, 9],
     [13, 13, 32, 32, 47, 47, 48, 52],
     [53, 53, 54, 57, 59, 59, 63, 63],
     [9, 9, 13, 13, 32, 32, 47, 47],
     [48, 52, 53, 53, 54, 57, 59, 59],
     [63, 63, 9, 9, 13, 13, 32, 32],
     [47, 47, 48, 50, 51, 51, 52, 57],
     [59, 59, 63, 63, 9, 9, 13, 13],
     [32, 32, 47, 47, 48, 53, 59, 59],
     [63, 63, 48, 48, 49, 49, 50, 50],
     [51, 57, 65, 90, 97, 122, 45, 45],
     [46, 46, 48, 57, 65, 90, 95, 95],
     [97, 122, 48, 48, 49, 49, 50, 50],
     [51, 57, 65, 90, 97, 122, 45, 45],
     [46, 46, 48, 57, 65, 90, 95, 95],
     [97, 122, 48, 48, 49, 49, 50, 50],
     [51, 57, 65, 90, 97, 122, 9, 9],
     [13, 13, 32, 32, 45, 45, 46, 46],
     [47, 47, 48, 57, 58, 58, 59, 59],
     [63, 63, 65, 90, 95, 95, 97, 122],
     [9, 9, 13, 13, 32, 32, 45, 45],
     [46, 46, 47, 47, 48, 57, 58, 58],
     [59, 59, 63, 63, 65, 90, 95, 95],
     [97, 122, 9, 9, 13, 13, 32, 32],
     [45, 45, 46, 46, 47, 47, 48, 57],
     [58, 58, 59, 59, 63, 63, 65, 90],
     [95, 95, 97, 122, 9, 9, 13, 13],
     [32, 32, 45, 45, 46, 46, 47, 47],
     [48, 52, 53, 53, 54, 57, 58, 58],
     [59, 59, 63, 63, 65, 90, 95, 95],
     [97, 122, 9, 9, 13, 13, 32, 32],
     [45, 45, 46, 46, 47, 47, 48, 53],
     [54, 57, 58, 58, 59, 59, 63, 63],
     [65, 90, 95, 95, 97, 122, 45, 45],
     [46, 46, 48, 57, 65, 90, 95, 95],
     [97, 122, 45, 45, 46, 46, 48, 57],
     [65, 90, 95, 95, 97, 122, 45, 45],
     [46, 46, 48, 52, 53, 53, 54, 57],
     [65, 90, 95, 95, 97, 122, 45, 45],
     [46, 46, 48, 53, 54, 57, 65, 90],
     [95, 95, 97, 122, 45, 45, 46, 46],
     [48, 57, 65, 90, 95, 95, 97, 122],
     [45, 45, 46, 46, 48, 57, 65, 90],
     [95, 95, 97, 122, 45, 45, 46, 46],
     [48, 52, 53, 53, 54, 57, 65, 90],
     [95, 95, 97, 122, 45, 45, 46, 46],
     [48, 53, 54, 57, 65, 90, 95, 95],
     [97, 122, 45, 45, 46, 46, 48, 57],
     [65, 90, 95, 95, 97, 122, 45, 45],
     [46, 46, 48, 57, 65, 90, 95, 95],
     [97, 122, 45, 45, 46, 46, 48, 52],
     [53, 53, 54, 57, 65, 90, 95, 95],
     [97, 122, 45, 45, 46, 46, 48, 53],
     [54, 57, 65, 90, 95, 95, 97, 122],
     [48, 57, 58, 58, 65, 65, 66, 66],
     [67, 67, 68, 68, 69, 69, 70, 70],
     [97, 97, 98, 98, 99, 99, 100, 100],
     [101, 101, 102, 102, 48, 57, 58, 58],
     [65, 65, 66, 66, 67, 67, 68, 68],
     [69, 69, 70, 70, 97, 97, 98, 98],
     [99, 99, 100, 100, 101, 101, 102, 102],
     [48, 57, 58, 58, 65, 65, 66, 66],
     [67, 67, 68, 68, 69, 69, 70, 70],
     [97, 97, 98, 98, 99, 99, 100, 100],
     [101, 101, 102, 102, 48, 57, 58, 58],
     [65, 65, 66, 66, 67, 67, 68, 68],
     [69, 69, 70, 70, 97, 97, 98, 98],
     [99, 99, 100, 100, 101, 101, 102, 102],
     [58, 58, 48, 57, 58, 58, 65, 65],
     [66, 66, 67, 67, 68, 68, 69, 69],
     [70, 70, 97, 97, 98, 98, 99, 99],
     [100, 100, 101, 101, 102, 102, 48, 57],
     [58, 58, 65, 65, 66, 66, 67, 67],
     [68, 68, 69, 69, 70, 70, 97, 97],
     [98, 98, 99, 99, 100, 100, 101, 101],
     [102, 102, 48, 57, 58, 58, 65, 65],
     [66, 66, 67, 67, 68, 68, 69, 69],
     [70, 70, 97, 97, 98, 98, 99, 99],
     [100, 100, 101, 101, 102, 102, 48, 57],
     [58, 58, 65, 65, 66, 66, 67, 67],
     [68, 68, 69, 69, 70, 70, 97, 97],
     [98, 98, 99, 99, 100, 100, 101, 101]]"

definition sup_cond_keys_65 :: "int list list" where
  "sup_cond_keys_65 =
    [[102, 102, 58, 58, 48, 57, 58, 58],
     [65, 65, 66, 66, 67, 67, 68, 68],
     [69, 69, 70, 70, 97, 97, 98, 98],
     [99, 99, 100, 100, 101, 101, 102, 102],
     [48, 57, 58, 58, 65, 65, 66, 66],
     [67, 67, 68, 68, 69, 69, 70, 70],
     [97, 97, 98, 98, 99, 99, 100, 100],
     [101, 101, 102, 102, 48, 57, 58, 58],
     [65, 65, 66, 66, 67, 67, 68, 68],
     [69, 69, 70, 70, 97, 97, 98, 98],
     [99, 99, 100, 100, 101, 101, 102, 102],
     [48, 57, 58, 58, 65, 65, 66, 66],
     [67, 67, 68, 68, 69, 69, 70, 70],
     [97, 97, 98, 98, 99, 99, 100, 100],
     [101, 101, 102, 102, 58, 58, 48, 57],
     [58, 58, 65, 65, 66, 66, 67, 67],
     [68, 68, 69, 69, 70, 70, 97, 97],
     [98, 98, 99, 99, 100, 100, 101, 101],
     [102, 102, 48, 57, 58, 58, 65, 65],
     [66, 66, 67, 67, 68, 68, 69, 69],
     [70, 70, 97, 97, 98, 98, 99, 99],
     [100, 100, 101, 101, 102, 102, 48, 57],
     [58, 58, 65, 65, 66, 66, 67, 67],
     [68, 68, 69, 69, 70, 70, 97, 97],
     [98, 98, 99, 99, 100, 100, 101, 101],
     [102, 102, 48, 57, 58, 58, 65, 65],
     [66, 66, 67, 67, 68, 68, 69, 69],
     [70, 70, 97, 97, 98, 98, 99, 99],
     [100, 100, 101, 101, 102, 102, 58, 58],
     [48, 57, 58, 58, 65, 65, 66, 66],
     [67, 67, 68, 68, 69, 69, 70, 70],
     [97, 97, 98, 98, 99, 99, 100, 100],
     [101, 101, 102, 102, 48, 57, 58, 58],
     [65, 65, 66, 66, 67, 67, 68, 68],
     [69, 69, 70, 70, 97, 97, 98, 98],
     [99, 99, 100, 100, 101, 101, 102, 102],
     [48, 57, 58, 58, 65, 65, 66, 66],
     [67, 67, 68, 68, 69, 69, 70, 70],
     [97, 97, 98, 98, 99, 99, 100, 100],
     [101, 101, 102, 102, 48, 57, 58, 58],
     [65, 65, 66, 66, 67, 67, 68, 68],
     [69, 69, 70, 70, 97, 97, 98, 98],
     [99, 99, 100, 100, 101, 101, 102, 102],
     [58, 58, 48, 57, 58, 58, 65, 65],
     [66, 66, 67, 67, 68, 68, 69, 69],
     [70, 70, 97, 97, 98, 98, 99, 99],
     [100, 100, 101, 101, 102, 102, 48, 57],
     [58, 58, 65, 65, 66, 66, 67, 67],
     [68, 68, 69, 69, 70, 70, 97, 97],
     [98, 98, 99, 99, 100, 100, 101, 101],
     [102, 102, 48, 57, 58, 58, 65, 65],
     [66, 66, 67, 67, 68, 68, 69, 69],
     [70, 70, 97, 97, 98, 98, 99, 99],
     [100, 100, 101, 101, 102, 102, 48, 57],
     [58, 58, 65, 65, 66, 66, 67, 67],
     [68, 68, 69, 69, 70, 70, 97, 97],
     [98, 98, 99, 99, 100, 100, 101, 101],
     [102, 102, 58, 58, 48, 48, 49, 49],
     [50, 50, 51, 57, 58, 58, 65, 65],
     [66, 66, 67, 67, 68, 68, 69, 69],
     [70, 70, 97, 97, 98, 98, 99, 99],
     [100, 100, 101, 101, 102, 102, 46, 46],
     [48, 57, 58, 58, 65, 65, 66, 66],
     [67, 67, 68, 68, 69, 69, 70, 70],
     [97, 97, 98, 98, 99, 99, 100, 100],
     [101, 101, 102, 102, 48, 48, 49, 49],
     [50, 50, 51, 57, 46, 46, 48, 48],
     [49, 49, 50, 50, 51, 57, 46, 46],
     [48, 48, 49, 49, 50, 50, 51, 57],
     [93, 93, 9, 9, 13, 13, 32, 32],
     [47, 47, 58, 58, 59, 59, 63, 63],
     [48, 57, 93, 93, 48, 57, 93, 93],
     [48, 52, 53, 53, 54, 57, 93, 93],
     [48, 53, 93, 93, 46, 46, 48, 57],
     [46, 46, 48, 57, 46, 46, 48, 52],
     [53, 53, 54, 57, 46, 46, 48, 53],
     [46, 46, 48, 57, 46, 46, 48, 57],
     [46, 46, 48, 52, 53, 53, 54, 57],
     [46, 46, 48, 53, 48, 57, 58, 58],
     [65, 65, 66, 66, 67, 67, 68, 68],
     [69, 69, 70, 70, 97, 97, 98, 98],
     [99, 99, 100, 100, 101, 101, 102, 102],
     [48, 57, 58, 58, 65, 65, 66, 66],
     [67, 67, 68, 68, 69, 69, 70, 70],
     [97, 97, 98, 98, 99, 99, 100, 100],
     [101, 101, 102, 102, 58, 58, 48, 57],
     [58, 58, 65, 65, 66, 66, 67, 67],
     [68, 68, 69, 69, 70, 70, 97, 97],
     [98, 98, 99, 99, 100, 100, 101, 101],
     [102, 102, 48, 57, 65, 65, 66, 66],
     [67, 67, 68, 68, 69, 69, 70, 70],
     [93, 93, 97, 97, 98, 98, 99, 99],
     [100, 100, 101, 101, 102, 102, 48, 57],
     [65, 65, 66, 66, 67, 67, 68, 68],
     [69, 69, 70, 70, 93, 93, 97, 97],
     [98, 98, 99, 99, 100, 100, 101, 101],
     [102, 102, 48, 57, 65, 65, 66, 66],
     [67, 67, 68, 68, 69, 69, 70, 70],
     [93, 93, 97, 97, 98, 98, 99, 99],
     [100, 100, 101, 101, 102, 102, 46, 46],
     [48, 57, 58, 58, 65, 65, 66, 66],
     [67, 67, 68, 68, 69, 69, 70, 70],
     [97, 97, 98, 98, 99, 99, 100, 100],
     [101, 101, 102, 102, 46, 46, 48, 57],
     [58, 58, 65, 65, 66, 66, 67, 67],
     [68, 68, 69, 69, 70, 70, 97, 97],
     [98, 98, 99, 99, 100, 100, 101, 101],
     [102, 102, 46, 46, 48, 57, 58, 58],
     [65, 65, 66, 66, 67, 67, 68, 68],
     [69, 69, 70, 70, 97, 97, 98, 98],
     [99, 99, 100, 100, 101, 101, 102, 102],
     [46, 46, 48, 52, 53, 53, 54, 57],
     [58, 58, 65, 65, 66, 66, 67, 67],
     [68, 68, 69, 69, 70, 70, 97, 97],
     [98, 98, 99, 99, 100, 100, 101, 101],
     [102, 102, 46, 46, 48, 53, 54, 57],
     [58, 58, 65, 65, 66, 66, 67, 67],
     [68, 68, 69, 69, 70, 70, 97, 97],
     [98, 98, 99, 99, 100, 100, 101, 101],
     [102, 102, 46, 46, 48, 57, 58, 58],
     [65, 65, 66, 66, 67, 67, 68, 68],
     [69, 69, 70, 70, 97, 97, 98, 98],
     [99, 99, 100, 100, 101, 101, 102, 102],
     [46, 46, 48, 57, 58, 58, 65, 65],
     [66, 66, 67, 67, 68, 68, 69, 69],
     [70, 70, 97, 97, 98, 98, 99, 99],
     [100, 100, 101, 101, 102, 102, 48, 57],
     [65, 65, 66, 66, 67, 67, 68, 68],
     [69, 69, 70, 70, 93, 93, 97, 97],
     [98, 98, 99, 99, 100, 100, 101, 101],
     [102, 102, 48, 57, 58, 58, 65, 65],
     [66, 66, 67, 67, 68, 68, 69, 69],
     [70, 70, 97, 97, 98, 98, 99, 99],
     [100, 100, 101, 101, 102, 102, 48, 48],
     [49, 49, 50, 50, 51, 57, 65, 65],
     [66, 66, 67, 67, 68, 68, 69, 69],
     [70, 70, 93, 93, 97, 97, 98, 98],
     [99, 99, 100, 100, 101, 101, 102, 102],
     [46, 46, 48, 57, 58, 58, 65, 65],
     [66, 66, 67, 67, 68, 68, 69, 69],
     [70, 70, 93, 93, 97, 97, 98, 98],
     [99, 99, 100, 100, 101, 101, 102, 102],
     [48, 57, 58, 58, 65, 65, 66, 66],
     [67, 67, 68, 68, 69, 69, 70, 70],
     [93, 93, 97, 97, 98, 98, 99, 99],
     [100, 100, 101, 101, 102, 102, 48, 57],
     [58, 58, 65, 65, 66, 66, 67, 67],
     [68, 68, 69, 69, 70, 70, 93, 93],
     [97, 97, 98, 98, 99, 99, 100, 100],
     [101, 101, 102, 102, 58, 58, 93, 93]]"

definition sup_cond_keys_66 :: "int list list" where
  "sup_cond_keys_66 =
    [[48, 57, 65, 65, 66, 66, 67, 67],
     [68, 68, 69, 69, 70, 70, 97, 97],
     [98, 98, 99, 99, 100, 100, 101, 101],
     [102, 102, 46, 46, 48, 57, 58, 58],
     [65, 65, 66, 66, 67, 67, 68, 68],
     [69, 69, 70, 70, 93, 93, 97, 97],
     [98, 98, 99, 99, 100, 100, 101, 101],
     [102, 102, 46, 46, 48, 57, 58, 58],
     [65, 65, 66, 66, 67, 67, 68, 68],
     [69, 69, 70, 70, 93, 93, 97, 97],
     [98, 98, 99, 99, 100, 100, 101, 101],
     [102, 102, 46, 46, 48, 57, 58, 58],
     [65, 65, 66, 66, 67, 67, 68, 68],
     [69, 69, 70, 70, 93, 93, 97, 97],
     [98, 98, 99, 99, 100, 100, 101, 101],
     [102, 102, 46, 46, 48, 52, 53, 53],
     [54, 57, 58, 58, 65, 65, 66, 66],
     [67, 67, 68, 68, 69, 69, 70, 70],
     [93, 93, 97, 97, 98, 98, 99, 99],
     [100, 100, 101, 101, 102, 102, 46, 46],
     [48, 53, 54, 57, 58, 58, 65, 65],
     [66, 66, 67, 67, 68, 68, 69, 69],
     [70, 70, 93, 93, 97, 97, 98, 98],
     [99, 99, 100, 100, 101, 101, 102, 102],
     [46, 46, 48, 57, 58, 58, 65, 65],
     [66, 66, 67, 67, 68, 68, 69, 69],
     [70, 70, 93, 93, 97, 97, 98, 98],
     [99, 99, 100, 100, 101, 101, 102, 102],
     [46, 46, 48, 57, 58, 58, 65, 65],
     [66, 66, 67, 67, 68, 68, 69, 69],
     [70, 70, 93, 93, 97, 97, 98, 98],
     [99, 99, 100, 100, 101, 101, 102, 102],
     [48, 57, 58, 58, 65, 65, 66, 66],
     [67, 67, 68, 68, 69, 69, 70, 70],
     [93, 93, 97, 97, 98, 98, 99, 99],
     [100, 100, 101, 101, 102, 102, 48, 48],
     [49, 49, 50, 50, 51, 57, 65, 65],
     [66, 66, 67, 67, 68, 68, 69, 69],
     [70, 70, 93, 93, 97, 97, 98, 98],
     [99, 99, 100, 100, 101, 101, 102, 102],
     [46, 46, 48, 57, 58, 58, 65, 65],
     [66, 66, 67, 67, 68, 68, 69, 69],
     [70, 70, 93, 93, 97, 97, 98, 98],
     [99, 99, 100, 100, 101, 101, 102, 102],
     [48, 57, 58, 58, 65, 65, 66, 66],
     [67, 67, 68, 68, 69, 69, 70, 70],
     [93, 93, 97, 97, 98, 98, 99, 99],
     [100, 100, 101, 101, 102, 102, 48, 57],
     [58, 58, 65, 65, 66, 66, 67, 67],
     [68, 68, 69, 69, 70, 70, 93, 93],
     [97, 97, 98, 98, 99, 99, 100, 100],
     [101, 101, 102, 102, 58, 58, 93, 93],
     [48, 48, 49, 49, 50, 50, 51, 57],
     [65, 65, 66, 66, 67, 67, 68, 68],
     [69, 69, 70, 70, 97, 97, 98, 98],
     [99, 99, 100, 100, 101, 101, 102, 102],
     [46, 46, 48, 57, 58, 58, 65, 65],
     [66, 66, 67, 67, 68, 68, 69, 69],
     [70, 70, 93, 93, 97, 97, 98, 98],
     [99, 99, 100, 100, 101, 101, 102, 102],
     [46, 46, 48, 57, 58, 58, 65, 65],
     [66, 66, 67, 67, 68, 68, 69, 69],
     [70, 70, 93, 93, 97, 97, 98, 98],
     [99, 99, 100, 100, 101, 101, 102, 102],
     [46, 46, 48, 57, 58, 58, 65, 65],
     [66, 66, 67, 67, 68, 68, 69, 69],
     [70, 70, 93, 93, 97, 97, 98, 98],
     [99, 99, 100, 100, 101, 101, 102, 102],
     [46, 46, 48, 52, 53, 53, 54, 57],
     [58, 58, 65, 65, 66, 66, 67, 67],
     [68, 68, 69, 69, 70, 70, 93, 93],
     [97, 97, 98, 98, 99, 99, 100, 100],
     [101, 101, 102, 102, 46, 46, 48, 53],
     [54, 57, 58, 58, 65, 65, 66, 66],
     [67, 67, 68, 68, 69, 69, 70, 70],
     [93, 93, 97, 97, 98, 98, 99, 99],
     [100, 100, 101, 101, 102, 102, 46, 46],
     [48, 57, 58, 58, 65, 65, 66, 66],
     [67, 67, 68, 68, 69, 69, 70, 70],
     [93, 93, 97, 97, 98, 98, 99, 99],
     [100, 100, 101, 101, 102, 102, 46, 46],
     [48, 57, 58, 58, 65, 65, 66, 66],
     [67, 67, 68, 68, 69, 69, 70, 70],
     [93, 93, 97, 97, 98, 98, 99, 99],
     [100, 100, 101, 101, 102, 102, 48, 57],
     [58, 58, 65, 65, 66, 66, 67, 67],
     [68, 68, 69, 69, 70, 70, 93, 93],
     [97, 97, 98, 98, 99, 99, 100, 100],
     [101, 101, 102, 102, 48, 48, 49, 49],
     [50, 50, 51, 57, 65, 65, 66, 66],
     [67, 67, 68, 68, 69, 69, 70, 70],
     [93, 93, 97, 97, 98, 98, 99, 99],
     [100, 100, 101, 101, 102, 102, 46, 46],
     [48, 57, 58, 58, 65, 65, 66, 66],
     [67, 67, 68, 68, 69, 69, 70, 70],
     [93, 93, 97, 97, 98, 98, 99, 99],
     [100, 100, 101, 101, 102, 102, 48, 57],
     [58, 58, 65, 65, 66, 66, 67, 67],
     [68, 68, 69, 69, 70, 70, 93, 93],
     [97, 97, 98, 98, 99, 99, 100, 100],
     [101, 101, 102, 102, 48, 57, 58, 58],
     [65, 65, 66, 66, 67, 67, 68, 68],
     [69, 69, 70, 70, 93, 93, 97, 97],
     [98, 98, 99, 99, 100, 100, 101, 101],
     [102, 102, 58, 58, 93, 93, 48, 48],
     [49, 49, 50, 50, 51, 57, 65, 65],
     [66, 66, 67, 67, 68, 68, 69, 69],
     [70, 70, 97, 97, 98, 98, 99, 99],
     [100, 100, 101, 101, 102, 102, 46, 46],
     [48, 57, 58, 58, 65, 65, 66, 66],
     [67, 67, 68, 68, 69, 69, 70, 70],
     [93, 93, 97, 97, 98, 98, 99, 99],
     [100, 100, 101, 101, 102, 102, 46, 46],
     [48, 57, 58, 58, 65, 65, 66, 66],
     [67, 67, 68, 68, 69, 69, 70, 70],
     [93, 93, 97, 97, 98, 98, 99, 99],
     [100, 100, 101, 101, 102, 102, 46, 46],
     [48, 57, 58, 58, 65, 65, 66, 66],
     [67, 67, 68, 68, 69, 69, 70, 70],
     [93, 93, 97, 97, 98, 98, 99, 99],
     [100, 100, 101, 101, 102, 102, 46, 46],
     [48, 52, 53, 53, 54, 57, 58, 58],
     [65, 65, 66, 66, 67, 67, 68, 68],
     [69, 69, 70, 70, 93, 93, 97, 97],
     [98, 98, 99, 99, 100, 100, 101, 101],
     [102, 102, 46, 46, 48, 53, 54, 57],
     [58, 58, 65, 65, 66, 66, 67, 67],
     [68, 68, 69, 69, 70, 70, 93, 93],
     [97, 97, 98, 98, 99, 99, 100, 100],
     [101, 101, 102, 102, 46, 46, 48, 57],
     [58, 58, 65, 65, 66, 66, 67, 67],
     [68, 68, 69, 69, 70, 70, 93, 93],
     [97, 97, 98, 98, 99, 99, 100, 100],
     [101, 101, 102, 102, 46, 46, 48, 57],
     [58, 58, 65, 65, 66, 66, 67, 67],
     [68, 68, 69, 69, 70, 70, 93, 93],
     [97, 97, 98, 98, 99, 99, 100, 100],
     [101, 101, 102, 102, 48, 57, 58, 58],
     [65, 65, 66, 66, 67, 67, 68, 68],
     [69, 69, 70, 70, 93, 93, 97, 97],
     [98, 98, 99, 99, 100, 100, 101, 101],
     [102, 102, 48, 48, 49, 49, 50, 50],
     [51, 57, 65, 65, 66, 66, 67, 67],
     [68, 68, 69, 69, 70, 70, 93, 93],
     [97, 97, 98, 98, 99, 99, 100, 100],
     [101, 101, 102, 102, 46, 46, 48, 57],
     [58, 58, 65, 65, 66, 66, 67, 67],
     [68, 68, 69, 69, 70, 70, 93, 93],
     [97, 97, 98, 98, 99, 99, 100, 100],
     [101, 101, 102, 102, 48, 57, 58, 58]]"

definition sup_cond_keys_67 :: "int list list" where
  "sup_cond_keys_67 =
    [[65, 65, 66, 66, 67, 67, 68, 68],
     [69, 69, 70, 70, 93, 93, 97, 97],
     [98, 98, 99, 99, 100, 100, 101, 101],
     [102, 102, 48, 57, 58, 58, 65, 65],
     [66, 66, 67, 67, 68, 68, 69, 69],
     [70, 70, 93, 93, 97, 97, 98, 98],
     [99, 99, 100, 100, 101, 101, 102, 102],
     [58, 58, 93, 93, 48, 48, 49, 49],
     [50, 50, 51, 57, 65, 65, 66, 66],
     [67, 67, 68, 68, 69, 69, 70, 70],
     [97, 97, 98, 98, 99, 99, 100, 100],
     [101, 101, 102, 102, 46, 46, 48, 57],
     [58, 58, 65, 65, 66, 66, 67, 67],
     [68, 68, 69, 69, 70, 70, 93, 93],
     [97, 97, 98, 98, 99, 99, 100, 100],
     [101, 101, 102, 102, 46, 46, 48, 57],
     [58, 58, 65, 65, 66, 66, 67, 67],
     [68, 68, 69, 69, 70, 70, 93, 93],
     [97, 97, 98, 98, 99, 99, 100, 100],
     [101, 101, 102, 102, 46, 46, 48, 57],
     [58, 58, 65, 65, 66, 66, 67, 67],
     [68, 68, 69, 69, 70, 70, 93, 93],
     [97, 97, 98, 98, 99, 99, 100, 100],
     [101, 101, 102, 102, 46, 46, 48, 52],
     [53, 53, 54, 57, 58, 58, 65, 65],
     [66, 66, 67, 67, 68, 68, 69, 69],
     [70, 70, 93, 93, 97, 97, 98, 98],
     [99, 99, 100, 100, 101, 101, 102, 102],
     [46, 46, 48, 53, 54, 57, 58, 58],
     [65, 65, 66, 66, 67, 67, 68, 68],
     [69, 69, 70, 70, 93, 93, 97, 97],
     [98, 98, 99, 99, 100, 100, 101, 101],
     [102, 102, 46, 46, 48, 57, 58, 58],
     [65, 65, 66, 66, 67, 67, 68, 68],
     [69, 69, 70, 70, 93, 93, 97, 97],
     [98, 98, 99, 99, 100, 100, 101, 101],
     [102, 102, 46, 46, 48, 57, 58, 58],
     [65, 65, 66, 66, 67, 67, 68, 68],
     [69, 69, 70, 70, 93, 93, 97, 97],
     [98, 98, 99, 99, 100, 100, 101, 101],
     [102, 102, 48, 57, 58, 58, 65, 65],
     [66, 66, 67, 67, 68, 68, 69, 69],
     [70, 70, 93, 93, 97, 97, 98, 98],
     [99, 99, 100, 100, 101, 101, 102, 102],
     [48, 48, 49, 49, 50, 50, 51, 57],
     [65, 65, 66, 66, 67, 67, 68, 68],
     [69, 69, 70, 70, 93, 93, 97, 97],
     [98, 98, 99, 99, 100, 100, 101, 101],
     [102, 102, 46, 46, 48, 57, 58, 58],
     [65, 65, 66, 66, 67, 67, 68, 68],
     [69, 69, 70, 70, 93, 93, 97, 97],
     [98, 98, 99, 99, 100, 100, 101, 101],
     [102, 102, 48, 57, 58, 58, 65, 65],
     [66, 66, 67, 67, 68, 68, 69, 69],
     [70, 70, 93, 93, 97, 97, 98, 98],
     [99, 99, 100, 100, 101, 101, 102, 102],
     [48, 57, 58, 58, 65, 65, 66, 66],
     [67, 67, 68, 68, 69, 69, 70, 70],
     [93, 93, 97, 97, 98, 98, 99, 99],
     [100, 100, 101, 101, 102, 102, 58, 58],
     [93, 93, 48, 48, 49, 49, 50, 50],
     [51, 57, 65, 65, 66, 66, 67, 67],
     [68, 68, 69, 69, 70, 70, 97, 97],
     [98, 98, 99, 99, 100, 100, 101, 101],
     [102, 102, 46, 46, 48, 57, 58, 58],
     [65, 65, 66, 66, 67, 67, 68, 68],
     [69, 69, 70, 70, 93, 93, 97, 97],
     [98, 98, 99, 99, 100, 100, 101, 101],
     [102, 102, 46, 46, 48, 57, 58, 58],
     [65, 65, 66, 66, 67, 67, 68, 68],
     [69, 69, 70, 70, 93, 93, 97, 97],
     [98, 98, 99, 99, 100, 100, 101, 101],
     [102, 102, 46, 46, 48, 57, 58, 58],
     [65, 65, 66, 66, 67, 67, 68, 68],
     [69, 69, 70, 70, 93, 93, 97, 97],
     [98, 98, 99, 99, 100, 100, 101, 101],
     [102, 102, 46, 46, 48, 52, 53, 53],
     [54, 57, 58, 58, 65, 65, 66, 66],
     [67, 67, 68, 68, 69, 69, 70, 70],
     [93, 93, 97, 97, 98, 98, 99, 99],
     [100, 100, 101, 101, 102, 102, 46, 46],
     [48, 53, 54, 57, 58, 58, 65, 65],
     [66, 66, 67, 67, 68, 68, 69, 69],
     [70, 70, 93, 93, 97, 97, 98, 98],
     [99, 99, 100, 100, 101, 101, 102, 102],
     [46, 46, 48, 57, 58, 58, 65, 65],
     [66, 66, 67, 67, 68, 68, 69, 69],
     [70, 70, 93, 93, 97, 97, 98, 98],
     [99, 99, 100, 100, 101, 101, 102, 102],
     [46, 46, 48, 57, 58, 58, 65, 65],
     [66, 66, 67, 67, 68, 68, 69, 69],
     [70, 70, 93, 93, 97, 97, 98, 98],
     [99, 99, 100, 100, 101, 101, 102, 102],
     [48, 57, 58, 58, 65, 65, 66, 66],
     [67, 67, 68, 68, 69, 69, 70, 70],
     [93, 93, 97, 97, 98, 98, 99, 99],
     [100, 100, 101, 101, 102, 102, 58, 58],
     [48, 48, 49, 49, 50, 50, 51, 57],
     [65, 65, 66, 66, 67, 67, 68, 68],
     [69, 69, 70, 70, 93, 93, 97, 97],
     [98, 98, 99, 99, 100, 100, 101, 101],
     [102, 102, 46, 46, 48, 57, 58, 58],
     [65, 65, 66, 66, 67, 67, 68, 68],
     [69, 69, 70, 70, 93, 93, 97, 97],
     [98, 98, 99, 99, 100, 100, 101, 101],
     [102, 102, 48, 57, 58, 58, 65, 65],
     [66, 66, 67, 67, 68, 68, 69, 69],
     [70, 70, 93, 93, 97, 97, 98, 98],
     [99, 99, 100, 100, 101, 101, 102, 102],
     [48, 57, 58, 58, 65, 65, 66, 66],
     [67, 67, 68, 68, 69, 69, 70, 70],
     [93, 93, 97, 97, 98, 98, 99, 99],
     [100, 100, 101, 101, 102, 102, 58, 58],
     [93, 93, 48, 48, 49, 49, 50, 50],
     [51, 57, 65, 65, 66, 66, 67, 67],
     [68, 68, 69, 69, 70, 70, 97, 97],
     [98, 98, 99, 99, 100, 100, 101, 101],
     [102, 102, 46, 46, 48, 57, 58, 58],
     [65, 65, 66, 66, 67, 67, 68, 68],
     [69, 69, 70, 70, 93, 93, 97, 97],
     [98, 98, 99, 99, 100, 100, 101, 101],
     [102, 102, 46, 46, 48, 57, 58, 58],
     [65, 65, 66, 66, 67, 67, 68, 68],
     [69, 69, 70, 70, 93, 93, 97, 97],
     [98, 98, 99, 99, 100, 100, 101, 101],
     [102, 102, 46, 46, 48, 57, 58, 58],
     [65, 65, 66, 66, 67, 67, 68, 68],
     [69, 69, 70, 70, 93, 93, 97, 97],
     [98, 98, 99, 99, 100, 100, 101, 101],
     [102, 102, 46, 46, 48, 52, 53, 53],
     [54, 57, 58, 58, 65, 65, 66, 66],
     [67, 67, 68, 68, 69, 69, 70, 70],
     [93, 93, 97, 97, 98, 98, 99, 99],
     [100, 100, 101, 101, 102, 102, 46, 46],
     [48, 53, 54, 57, 58, 58, 65, 65],
     [66, 66, 67, 67, 68, 68, 69, 69],
     [70, 70, 93, 93, 97, 97, 98, 98],
     [99, 99, 100, 100, 101, 101, 102, 102],
     [46, 46, 48, 57, 58, 58, 65, 65],
     [66, 66, 67, 67, 68, 68, 69, 69],
     [70, 70, 93, 93, 97, 97, 98, 98],
     [99, 99, 100, 100, 101, 101, 102, 102],
     [46, 46, 48, 57, 58, 58, 65, 65],
     [66, 66, 67, 67, 68, 68, 69, 69],
     [70, 70, 93, 93, 97, 97, 98, 98],
     [99, 99, 100, 100, 101, 101, 102, 102],
     [48, 57, 58, 58, 65, 65, 66, 66],
     [67, 67, 68, 68, 69, 69, 70, 70],
     [93, 93, 97, 97, 98, 98, 99, 99],
     [100, 100, 101, 101, 102, 102, 48, 57]]"

definition sup_cond_keys_68 :: "int list list" where
  "sup_cond_keys_68 =
    [[65, 65, 66, 66, 67, 67, 68, 68],
     [69, 69, 70, 70, 97, 97, 98, 98],
     [99, 99, 100, 100, 101, 101, 102, 102],
     [48, 57, 65, 65, 66, 66, 67, 67],
     [68, 68, 69, 69, 70, 70, 97, 97],
     [98, 98, 99, 99, 100, 100, 101, 101],
     [102, 102, 9, 9, 13, 13, 32, 32],
     [33, 33, 36, 36, 37, 37, 38, 38],
     [39, 39, 40, 40, 41, 41, 42, 42],
     [43, 43, 44, 44, 45, 45, 46, 46],
     [47, 47, 48, 57, 58, 58, 59, 59],
     [61, 61, 63, 63, 64, 64, 65, 90],
     [95, 95, 97, 122, 126, 126, 48, 57],
     [65, 65, 66, 66, 67, 67, 68, 68],
     [69, 69, 70, 70, 97, 97, 98, 98],
     [99, 99, 100, 100, 101, 101, 102, 102],
     [48, 57, 65, 65, 66, 66, 67, 67],
     [68, 68, 69, 69, 70, 70, 97, 97],
     [98, 98, 99, 99, 100, 100, 101, 101],
     [102, 102, 9, 9, 13, 13, 32, 32],
     [33, 33, 36, 36, 37, 37, 38, 38],
     [39, 39, 40, 40, 41, 41, 42, 42],
     [43, 43, 44, 44, 45, 45, 46, 46],
     [47, 47, 48, 48, 49, 49, 50, 50],
     [51, 57, 58, 58, 59, 59, 61, 61],
     [63, 63, 64, 64, 65, 90, 91, 91],
     [95, 95, 97, 122, 126, 126, 9, 9],
     [13, 13, 32, 32, 33, 33, 35, 35],
     [36, 36, 37, 37, 38, 38, 39, 39],
     [40, 40, 41, 41, 42, 42, 43, 43],
     [44, 44, 45, 45, 46, 46, 47, 47],
     [48, 57, 58, 58, 59, 59, 61, 61],
     [63, 63, 64, 64, 65, 90, 95, 95],
     [96, 96, 97, 122, 126, 126, 9, 9],
     [13, 13, 32, 32, 33, 33, 35, 35],
     [36, 36, 37, 37, 38, 38, 39, 39],
     [40, 40, 41, 41, 42, 42, 43, 43],
     [44, 44, 45, 45, 46, 46, 47, 47],
     [48, 57, 58, 58, 59, 59, 61, 61],
     [63, 63, 64, 64, 65, 90, 95, 95],
     [96, 96, 97, 122, 126, 126, 9, 9],
     [13, 13, 32, 32, 33, 33, 37, 37],
     [39, 39, 42, 42, 43, 43, 45, 45],
     [46, 46, 48, 57, 59, 59, 61, 61],
     [65, 65, 66, 66, 67, 67, 68, 68],
     [69, 69, 70, 70, 71, 90, 95, 95],
     [96, 96, 97, 97, 98, 98, 99, 99],
     [100, 100, 101, 101, 102, 102, 103, 122],
     [126, 126, 9, 9, 13, 13, 32, 32],
     [33, 33, 37, 37, 39, 39, 42, 42],
     [43, 43, 45, 45, 46, 46, 48, 57],
     [59, 59, 61, 61, 65, 65, 66, 66],
     [67, 67, 68, 68, 69, 69, 70, 70],
     [71, 90, 95, 95, 96, 96, 97, 97],
     [98, 98, 99, 99, 100, 100, 101, 101],
     [102, 102, 103, 122, 126, 126, 9, 9],
     [13, 13, 32, 32, 33, 33, 34, 34],
     [35, 35, 36, 36, 37, 37, 38, 38],
     [39, 39, 40, 40, 41, 41, 42, 42],
     [43, 43, 44, 44, 45, 45, 46, 46],
     [47, 47, 48, 48, 49, 49, 50, 50],
     [51, 57, 58, 58, 59, 59, 61, 61],
     [63, 63, 64, 64, 65, 90, 91, 91],
     [95, 95, 96, 96, 97, 122, 126, 126],
     [9, 9, 13, 13, 32, 32, 33, 33],
     [35, 35, 36, 36, 37, 37, 38, 38],
     [39, 39, 40, 40, 41, 41, 42, 42],
     [43, 43, 44, 44, 45, 45, 46, 46],
     [47, 47, 48, 57, 58, 58, 59, 59],
     [61, 61, 63, 63, 64, 64, 65, 90],
     [95, 95, 96, 96, 97, 122, 126, 126],
     [9, 9, 13, 13, 32, 32, 33, 33],
     [37, 37, 39, 39, 42, 42, 43, 43],
     [45, 45, 46, 46, 48, 57, 59, 59],
     [65, 65, 66, 66, 67, 67, 68, 68],
     [69, 69, 70, 70, 71, 90, 95, 95],
     [96, 96, 97, 97, 98, 98, 99, 99],
     [100, 100, 101, 101, 102, 102, 103, 122],
     [126, 126, 9, 9, 13, 13, 32, 32],
     [33, 33, 37, 37, 39, 39, 42, 42],
     [43, 43, 45, 45, 46, 46, 48, 57],
     [59, 59, 65, 65, 66, 66, 67, 67],
     [68, 68, 69, 69, 70, 70, 71, 90],
     [95, 95, 96, 96, 97, 97, 98, 98],
     [99, 99, 100, 100, 101, 101, 102, 102],
     [103, 122, 126, 126, 9, 9, 13, 13],
     [32, 32, 33, 33, 37, 37, 39, 39],
     [42, 42, 43, 43, 45, 45, 46, 46],
     [48, 57, 58, 58, 60, 60, 65, 72],
     [73, 73, 74, 90, 95, 95, 96, 96],
     [97, 104, 105, 105, 106, 122, 126, 126],
     [9, 9, 13, 13, 32, 32, 33, 33],
     [37, 37, 39, 39, 42, 42, 43, 43],
     [45, 45, 46, 46, 48, 57, 58, 58],
     [60, 60, 65, 79, 80, 80, 81, 90],
     [95, 95, 96, 96, 97, 111, 112, 112],
     [113, 122, 126, 126, 9, 9, 13, 13],
     [32, 32, 33, 33, 37, 37, 39, 39],
     [42, 42, 43, 43, 45, 45, 46, 46],
     [48, 57, 58, 58, 60, 60, 65, 82],
     [83, 83, 84, 90, 95, 95, 96, 96],
     [97, 114, 115, 115, 116, 122, 126, 126],
     [33, 33, 35, 35, 36, 36, 37, 37],
     [38, 38, 39, 39, 40, 40, 41, 41],
     [42, 42, 43, 43, 44, 44, 45, 45],
     [46, 46, 47, 47, 48, 48, 49, 49],
     [50, 50, 51, 57, 59, 59, 61, 61],
     [63, 63, 65, 90, 91, 91, 95, 95],
     [97, 122, 126, 126, 33, 33, 35, 35],
     [36, 36, 37, 37, 38, 38, 39, 39],
     [40, 40, 41, 41, 42, 42, 43, 43],
     [44, 44, 45, 45, 46, 46, 47, 47],
     [48, 57, 58, 58, 59, 59, 61, 61],
     [63, 63, 64, 64, 65, 90, 95, 95],
     [97, 122, 126, 126, 48, 57, 65, 65],
     [66, 66, 67, 67, 68, 68, 69, 69],
     [70, 70, 97, 97, 98, 98, 99, 99],
     [100, 100, 101, 101, 102, 102, 48, 57],
     [65, 65, 66, 66, 67, 67, 68, 68],
     [69, 69, 70, 70, 97, 97, 98, 98],
     [99, 99, 100, 100, 101, 101, 102, 102],
     [33, 33, 36, 36, 37, 37, 38, 38],
     [39, 39, 40, 40, 41, 41, 42, 42],
     [43, 43, 44, 44, 45, 45, 46, 46],
     [48, 57, 61, 61, 64, 64, 65, 90],
     [95, 95, 97, 122, 126, 126, 48, 57],
     [65, 65, 66, 66, 67, 67, 68, 68],
     [69, 69, 70, 70, 97, 97, 98, 98],
     [99, 99, 100, 100, 101, 101, 102, 102],
     [48, 57, 65, 65, 66, 66, 67, 67],
     [68, 68, 69, 69, 70, 70, 97, 97],
     [98, 98, 99, 99, 100, 100, 101, 101],
     [102, 102, 48, 48, 49, 49, 50, 50],
     [51, 57, 65, 90, 91, 91, 97, 122],
     [45, 45, 46, 46, 48, 57, 65, 90],
     [95, 95, 97, 122, 45, 45, 48, 57],
     [65, 90, 95, 95, 97, 122, 45, 45],
     [46, 46, 48, 57, 65, 90, 95, 95],
     [97, 122, 48, 57, 65, 90, 97, 122],
     [9, 9, 13, 13, 32, 32, 45, 45],
     [46, 46, 48, 57, 58, 58, 59, 59],
     [63, 63, 65, 90, 95, 95, 97, 122],
     [45, 45, 48, 57, 65, 90, 95, 95],
     [97, 122, 9, 9, 13, 13, 32, 32],
     [48, 57, 58, 58, 59, 59, 63, 63],
     [65, 90, 97, 122, 48, 48, 49, 53],
     [54, 54, 55, 57, 48, 48, 49, 57],
     [48, 48, 49, 57, 49, 57, 9, 9],
     [13, 13, 32, 32, 59, 59, 63, 63],
     [9, 9, 13, 13, 32, 32, 33, 33]]"

definition sup_cond_keys_69 :: "int list list" where
  "sup_cond_keys_69 =
    [[36, 36, 37, 37, 38, 38, 39, 39],
     [40, 40, 41, 41, 42, 42, 43, 43],
     [45, 45, 46, 46, 47, 47, 48, 57],
     [58, 58, 65, 75, 76, 76, 77, 78],
     [79, 79, 80, 83, 84, 84, 85, 90],
     [91, 91, 93, 93, 95, 95, 96, 96],
     [97, 107, 108, 108, 109, 110, 111, 111],
     [112, 115, 116, 116, 117, 122, 126, 126],
     [9, 9, 13, 13, 32, 32, 33, 33],
     [36, 36, 37, 37, 38, 38, 39, 39],
     [40, 40, 41, 41, 42, 42, 43, 43],
     [45, 45, 46, 46, 47, 47, 48, 57],
     [58, 58, 59, 59, 61, 61, 63, 63],
     [65, 90, 91, 91, 93, 93, 95, 95],
     [96, 96, 97, 122, 126, 126, 9, 9],
     [13, 13, 32, 32, 33, 33, 37, 37],
     [39, 39, 42, 42, 43, 43, 45, 45],
     [46, 46, 48, 57, 59, 59, 61, 61],
     [65, 65, 66, 66, 67, 67, 68, 68],
     [69, 69, 70, 70, 71, 90, 95, 95],
     [96, 96, 97, 97, 98, 98, 99, 99],
     [100, 100, 101, 101, 102, 102, 103, 122],
     [126, 126, 9, 9, 13, 13, 32, 32],
     [33, 33, 37, 37, 39, 39, 42, 42],
     [43, 43, 45, 45, 46, 46, 48, 57],
     [59, 59, 61, 61, 65, 65, 66, 66],
     [67, 67, 68, 68, 69, 69, 70, 70],
     [71, 90, 95, 95, 96, 96, 97, 97],
     [98, 98, 99, 99, 100, 100, 101, 101],
     [102, 102, 103, 122, 126, 126, 9, 9],
     [13, 13, 32, 32, 33, 33, 34, 34],
     [36, 36, 37, 37, 38, 38, 39, 39],
     [40, 40, 41, 41, 42, 42, 43, 43],
     [45, 45, 46, 46, 47, 47, 48, 48],
     [49, 49, 50, 50, 51, 57, 58, 58],
     [59, 59, 61, 61, 63, 63, 65, 90],
     [91, 91, 93, 93, 95, 95, 96, 96],
     [97, 122, 126, 126, 9, 9, 13, 13],
     [32, 32, 33, 33, 36, 36, 37, 37],
     [38, 38, 39, 39, 40, 40, 41, 41],
     [42, 42, 43, 43, 45, 45, 46, 46],
     [47, 47, 48, 57, 58, 58, 59, 59],
     [63, 63, 65, 90, 91, 91, 93, 93],
     [95, 95, 96, 96, 97, 122, 126, 126],
     [9, 9, 13, 13, 32, 32, 33, 33],
     [37, 37, 39, 39, 42, 42, 43, 43],
     [45, 45, 46, 46, 48, 57, 59, 59],
     [65, 65, 66, 66, 67, 67, 68, 68],
     [69, 69, 70, 70, 71, 90, 95, 95],
     [96, 96, 97, 97, 98, 98, 99, 99],
     [100, 100, 101, 101, 102, 102, 103, 122],
     [126, 126, 9, 9, 13, 13, 32, 32],
     [33, 33, 37, 37, 39, 39, 42, 42],
     [43, 43, 45, 45, 46, 46, 48, 57],
     [59, 59, 65, 65, 66, 66, 67, 67],
     [68, 68, 69, 69, 70, 70, 71, 90],
     [95, 95, 96, 96, 97, 97, 98, 98],
     [99, 99, 100, 100, 101, 101, 102, 102],
     [103, 122, 126, 126, 33, 33, 36, 36],
     [37, 37, 38, 38, 39, 39, 40, 40],
     [41, 41, 42, 42, 43, 43, 45, 45],
     [46, 46, 47, 47, 48, 57, 58, 58],
     [59, 59, 63, 63, 65, 65, 66, 66],
     [67, 67, 68, 68, 69, 69, 70, 70],
     [71, 90, 91, 91, 93, 93, 95, 95],
     [97, 97, 98, 98, 99, 99, 100, 100],
     [101, 101, 102, 102, 103, 122, 126, 126],
     [33, 33, 36, 36, 37, 37, 38, 38],
     [39, 39, 40, 40, 41, 41, 42, 42],
     [43, 43, 45, 45, 46, 46, 47, 47],
     [48, 57, 58, 58, 59, 59, 63, 63],
     [65, 65, 66, 66, 67, 67, 68, 68],
     [69, 69, 70, 70, 71, 90, 91, 91],
     [93, 93, 95, 95, 97, 97, 98, 98],
     [99, 99, 100, 100, 101, 101, 102, 102],
     [103, 122, 126, 126, 33, 33, 36, 36],
     [37, 37, 38, 38, 39, 39, 40, 40],
     [41, 41, 42, 42, 43, 43, 45, 45],
     [46, 46, 47, 47, 48, 57, 58, 58],
     [59, 59, 63, 63, 65, 65, 66, 66],
     [67, 67, 68, 68, 69, 69, 70, 70],
     [71, 90, 91, 91, 93, 93, 95, 95],
     [97, 97, 98, 98, 99, 99, 100, 100],
     [101, 101, 102, 102, 103, 122, 126, 126],
     [33, 33, 36, 36, 37, 37, 38, 38],
     [39, 39, 40, 40, 41, 41, 42, 42],
     [43, 43, 45, 45, 46, 46, 47, 47],
     [48, 57, 58, 58, 59, 59, 63, 63],
     [65, 65, 66, 66, 67, 67, 68, 68],
     [69, 69, 70, 70, 71, 90, 91, 91],
     [93, 93, 95, 95, 97, 97, 98, 98],
     [99, 99, 100, 100, 101, 101, 102, 102],
     [103, 122, 126, 126, 33, 33, 36, 36],
     [37, 37, 38, 38, 39, 39, 40, 40],
     [41, 41, 42, 42, 43, 43, 45, 45],
     [46, 46, 47, 47, 48, 57, 58, 58],
     [59, 59, 63, 63, 65, 90, 91, 91],
     [93, 93, 95, 95, 97, 122, 126, 126],
     [33, 33, 36, 36, 37, 37, 38, 38],
     [39, 39, 40, 40, 41, 41, 42, 42],
     [43, 43, 45, 45, 46, 46, 47, 47],
     [48, 57, 58, 58, 59, 59, 63, 63],
     [65, 65, 66, 66, 67, 67, 68, 68],
     [69, 69, 70, 70, 71, 90, 91, 91],
     [93, 93, 95, 95, 97, 97, 98, 98],
     [99, 99, 100, 100, 101, 101, 102, 102],
     [103, 122, 126, 126, 33, 33, 36, 36],
     [37, 37, 38, 38, 39, 39, 40, 40],
     [41, 41, 42, 42, 43, 43, 45, 45],
     [46, 46, 47, 47, 48, 57, 58, 58],
     [59, 59, 63, 63, 65, 65, 66, 66],
     [67, 67, 68, 68, 69, 69, 70, 70],
     [71, 90, 91, 91, 93, 93, 95, 95],
     [97, 97, 98, 98, 99, 99, 100, 100],
     [101, 101, 102, 102, 103, 122, 126, 126],
     [33, 33, 36, 36, 37, 37, 38, 38],
     [39, 39, 40, 40, 41, 41, 42, 42],
     [43, 43, 45, 45, 46, 46, 47, 47],
     [48, 57, 58, 58, 59, 59, 63, 63],
     [65, 65, 66, 66, 67, 67, 68, 68],
     [69, 69, 70, 70, 71, 90, 91, 91],
     [93, 93, 95, 95, 97, 97, 98, 98],
     [99, 99, 100, 100, 101, 101, 102, 102],
     [103, 122, 126, 126, 33, 33, 36, 36],
     [37, 37, 38, 38, 39, 39, 40, 40],
     [41, 41, 42, 42, 43, 43, 45, 45],
     [46, 46, 47, 47, 48, 57, 58, 58],
     [59, 59, 63, 63, 65, 65, 66, 66],
     [67, 67, 68, 68, 69, 69, 70, 70],
     [71, 90, 91, 91, 93, 93, 95, 95],
     [97, 97, 98, 98, 99, 99, 100, 100],
     [101, 101, 102, 102, 103, 122, 126, 126],
     [33, 33, 36, 36, 37, 37, 38, 38],
     [39, 39, 40, 40, 41, 41, 42, 42],
     [43, 43, 45, 45, 46, 46, 47, 47],
     [48, 57, 58, 58, 59, 59, 63, 63],
     [65, 90, 91, 91, 93, 93, 95, 95],
     [97, 122, 126, 126, 33, 33, 36, 36],
     [37, 37, 38, 38, 39, 39, 40, 40],
     [41, 41, 42, 42, 43, 43, 45, 45],
     [46, 46, 47, 47, 48, 57, 58, 58],
     [59, 59, 63, 63, 65, 65, 66, 66],
     [67, 67, 68, 68, 69, 69, 70, 70],
     [71, 90, 91, 91, 93, 93, 95, 95],
     [97, 97, 98, 98, 99, 99, 100, 100],
     [101, 101, 102, 102, 103, 122, 126, 126],
     [33, 33, 36, 36, 37, 37, 38, 38],
     [39, 39, 40, 40, 41, 41, 42, 42],
     [43, 43, 45, 45, 46, 46, 47, 47],
     [48, 57, 58, 58, 59, 59, 63, 63]]"

definition sup_cond_keys_70 :: "int list list" where
  "sup_cond_keys_70 =
    [[65, 65, 66, 66, 67, 67, 68, 68],
     [69, 69, 70, 70, 71, 90, 91, 91],
     [93, 93, 95, 95, 97, 97, 98, 98],
     [99, 99, 100, 100, 101, 101, 102, 102],
     [103, 122, 126, 126, 33, 33, 36, 36],
     [37, 37, 38, 38, 39, 39, 40, 40],
     [41, 41, 42, 42, 43, 43, 45, 45],
     [46, 46, 47, 47, 48, 57, 58, 58],
     [59, 59, 63, 63, 65, 65, 66, 66],
     [67, 67, 68, 68, 69, 69, 70, 70],
     [71, 90, 91, 91, 93, 93, 95, 95],
     [97, 97, 98, 98, 99, 99, 100, 100],
     [101, 101, 102, 102, 103, 122, 126, 126],
     [33, 33, 36, 36, 37, 37, 38, 38],
     [39, 39, 40, 40, 41, 41, 42, 42],
     [43, 43, 45, 45, 46, 46, 47, 47],
     [48, 57, 58, 58, 59, 59, 63, 63],
     [65, 65, 66, 66, 67, 67, 68, 68],
     [69, 69, 70, 70, 71, 90, 91, 91],
     [93, 93, 95, 95, 97, 97, 98, 98],
     [99, 99, 100, 100, 101, 101, 102, 102],
     [103, 122, 126, 126, 33, 33, 36, 36],
     [37, 37, 38, 38, 39, 39, 40, 40],
     [41, 41, 42, 42, 43, 43, 45, 45],
     [46, 46, 47, 47, 48, 57, 58, 58],
     [59, 59, 63, 63, 65, 90, 91, 91],
     [93, 93, 95, 95, 97, 122, 126, 126],
     [33, 33, 36, 36, 37, 37, 38, 38],
     [39, 39, 40, 40, 41, 41, 42, 42],
     [43, 43, 45, 45, 46, 46, 47, 47],
     [48, 57, 58, 58, 59, 59, 63, 63],
     [65, 65, 66, 66, 67, 67, 68, 68],
     [69, 69, 70, 70, 71, 90, 91, 91],
     [93, 93, 95, 95, 97, 97, 98, 98],
     [99, 99, 100, 100, 101, 101, 102, 102],
     [103, 122, 126, 126, 33, 33, 36, 36],
     [37, 37, 38, 38, 39, 39, 40, 40],
     [41, 41, 42, 42, 43, 43, 45, 45],
     [46, 46, 47, 47, 48, 57, 58, 58],
     [59, 59, 63, 63, 65, 65, 66, 66],
     [67, 67, 68, 68, 69, 69, 70, 70],
     [71, 90, 91, 91, 93, 93, 95, 95],
     [97, 97, 98, 98, 99, 99, 100, 100],
     [101, 101, 102, 102, 103, 122, 126, 126],
     [33, 33, 36, 36, 37, 37, 38, 38],
     [39, 39, 40, 40, 41, 41, 42, 42],
     [43, 43, 45, 45, 46, 46, 47, 47],
     [48, 57, 58, 58, 59, 59, 63, 63],
     [65, 65, 66, 66, 67, 67, 68, 68],
     [69, 69, 70, 70, 71, 90, 91, 91],
     [93, 93, 95, 95, 97, 97, 98, 98],
     [99, 99, 100, 100, 101, 101, 102, 102],
     [103, 122, 126, 126, 33, 33, 36, 36],
     [37, 37, 38, 38, 39, 39, 40, 40],
     [41, 41, 42, 42, 43, 43, 45, 45],
     [46, 46, 47, 47, 48, 57, 58, 58],
     [59, 59, 63, 63, 65, 65, 66, 66],
     [67, 67, 68, 68, 69, 69, 70, 70],
     [71, 90, 91, 91, 93, 93, 95, 95],
     [97, 97, 98, 98, 99, 99, 100, 100],
     [101, 101, 102, 102, 103, 122, 126, 126],
     [33, 33, 36, 36, 37, 37, 38, 38],
     [39, 39, 40, 40, 41, 41, 42, 42],
     [43, 43, 45, 45, 46, 46, 47, 47],
     [48, 57, 58, 58, 59, 59, 63, 63],
     [65, 90, 91, 91, 93, 93, 95, 95],
     [97, 122, 126, 126, 33, 33, 36, 36],
     [37, 37, 38, 38, 39, 39, 40, 40],
     [41, 41, 42, 42, 43, 43, 45, 45],
     [46, 46, 47, 47, 48, 57, 58, 58],
     [59, 59, 63, 63, 65, 65, 66, 66],
     [67, 67, 68, 68, 69, 69, 70, 70],
     [71, 90, 91, 91, 93, 93, 95, 95],
     [97, 97, 98, 98, 99, 99, 100, 100],
     [101, 101, 102, 102, 103, 122, 126, 126],
     [33, 33, 36, 36, 37, 37, 38, 38],
     [39, 39, 40, 40, 41, 41, 42, 42],
     [43, 43, 45, 45, 46, 46, 47, 47],
     [48, 57, 58, 58, 59, 59, 63, 63],
     [65, 65, 66, 66, 67, 67, 68, 68],
     [69, 69, 70, 70, 71, 90, 91, 91],
     [93, 93, 95, 95, 97, 97, 98, 98],
     [99, 99, 100, 100, 101, 101, 102, 102],
     [103, 122, 126, 126, 33, 33, 36, 36],
     [37, 37, 38, 38, 39, 39, 40, 40],
     [41, 41, 42, 42, 43, 43, 45, 45],
     [46, 46, 47, 47, 48, 57, 58, 58],
     [59, 59, 63, 63, 65, 65, 66, 66],
     [67, 67, 68, 68, 69, 69, 70, 70],
     [71, 90, 91, 91, 93, 93, 95, 95],
     [97, 97, 98, 98, 99, 99, 100, 100],
     [101, 101, 102, 102, 103, 122, 126, 126],
     [33, 33, 36, 36, 37, 37, 38, 38],
     [39, 39, 40, 40, 41, 41, 42, 42],
     [43, 43, 45, 45, 46, 46, 47, 47],
     [48, 57, 58, 58, 59, 59, 63, 63],
     [65, 65, 66, 66, 67, 67, 68, 68],
     [69, 69, 70, 70, 71, 90, 91, 91],
     [93, 93, 95, 95, 97, 97, 98, 98],
     [99, 99, 100, 100, 101, 101, 102, 102],
     [103, 122, 126, 126, 33, 33, 36, 36],
     [37, 37, 38, 38, 39, 39, 40, 40],
     [41, 41, 42, 42, 43, 43, 45, 45],
     [46, 46, 47, 47, 48, 57, 58, 58],
     [59, 59, 63, 63, 65, 90, 91, 91],
     [93, 93, 95, 95, 97, 122, 126, 126],
     [33, 33, 36, 36, 37, 37, 38, 38],
     [39, 39, 40, 40, 41, 41, 42, 42],
     [43, 43, 45, 45, 46, 46, 47, 47],
     [48, 57, 58, 58, 59, 59, 63, 63],
     [65, 65, 66, 66, 67, 67, 68, 68],
     [69, 69, 70, 70, 71, 90, 91, 91],
     [93, 93, 95, 95, 97, 97, 98, 98],
     [99, 99, 100, 100, 101, 101, 102, 102],
     [103, 122, 126, 126, 33, 33, 36, 36],
     [37, 37, 38, 38, 39, 39, 40, 40],
     [41, 41, 42, 42, 43, 43, 45, 45],
     [46, 46, 47, 47, 48, 57, 58, 58],
     [59, 59, 63, 63, 65, 65, 66, 66],
     [67, 67, 68, 68, 69, 69, 70, 70],
     [71, 90, 91, 91, 93, 93, 95, 95],
     [97, 97, 98, 98, 99, 99, 100, 100],
     [101, 101, 102, 102, 103, 122, 126, 126],
     [33, 33, 36, 36, 37, 37, 38, 38],
     [39, 39, 40, 40, 41, 41, 42, 42],
     [43, 43, 45, 45, 46, 46, 47, 47],
     [48, 57, 58, 58, 59, 59, 63, 63],
     [65, 65, 66, 66, 67, 67, 68, 68],
     [69, 69, 70, 70, 71, 90, 91, 91],
     [93, 93, 95, 95, 97, 97, 98, 98],
     [99, 99, 100, 100, 101, 101, 102, 102],
     [103, 122, 126, 126, 33, 33, 36, 36],
     [37, 37, 38, 38, 39, 39, 40, 40],
     [41, 41, 42, 42, 43, 43, 45, 45],
     [46, 46, 47, 47, 48, 57, 58, 58],
     [59, 59, 63, 63, 65, 65, 66, 66],
     [67, 67, 68, 68, 69, 69, 70, 70],
     [71, 90, 91, 91, 93, 93, 95, 95],
     [97, 97, 98, 98, 99, 99, 100, 100],
     [101, 101, 102, 102, 103, 122, 126, 126],
     [33, 33, 36, 36, 37, 37, 38, 38],
     [39, 39, 40, 40, 41, 41, 42, 42],
     [43, 43, 45, 45, 46, 46, 47, 47],
     [48, 57, 58, 58, 59, 59, 63, 63],
     [65, 90, 91, 91, 93, 93, 95, 95],
     [97, 122, 126, 126, 33, 33, 36, 36],
     [37, 37, 38, 38, 39, 39, 40, 40],
     [41, 41, 42, 42, 43, 43, 45, 45],
     [46, 46, 47, 47, 48, 48, 49, 49],
     [50, 50, 51, 57, 58, 58, 59, 59]]"

definition sup_cond_keys_71 :: "int list list" where
  "sup_cond_keys_71 =
    [[63, 63, 65, 65, 66, 66, 67, 67],
     [68, 68, 69, 69, 70, 70, 71, 90],
     [91, 91, 93, 93, 95, 95, 97, 97],
     [98, 98, 99, 99, 100, 100, 101, 101],
     [102, 102, 103, 122, 126, 126, 33, 33],
     [36, 36, 37, 37, 38, 38, 39, 39],
     [40, 40, 41, 41, 42, 42, 43, 43],
     [45, 45, 46, 46, 47, 47, 48, 57],
     [58, 58, 59, 59, 63, 63, 65, 65],
     [66, 66, 67, 67, 68, 68, 69, 69],
     [70, 70, 71, 90, 91, 91, 93, 93],
     [95, 95, 97, 97, 98, 98, 99, 99],
     [100, 100, 101, 101, 102, 102, 103, 122],
     [126, 126, 33, 33, 36, 36, 37, 37],
     [38, 38, 39, 39, 40, 40, 41, 41],
     [42, 42, 43, 43, 45, 45, 46, 46],
     [47, 47, 48, 48, 49, 49, 50, 50],
     [51, 57, 58, 58, 59, 59, 63, 63],
     [65, 90, 91, 91, 93, 93, 95, 95],
     [97, 122, 126, 126, 33, 33, 36, 36],
     [37, 37, 38, 38, 39, 39, 40, 40],
     [41, 41, 42, 42, 43, 43, 45, 45],
     [46, 46, 47, 47, 48, 57, 58, 58],
     [59, 59, 63, 63, 65, 90, 91, 91],
     [93, 93, 95, 95, 97, 122, 126, 126],
     [33, 33, 36, 36, 37, 37, 38, 38],
     [39, 39, 40, 40, 41, 41, 42, 42],
     [43, 43, 45, 45, 46, 46, 47, 47],
     [48, 48, 49, 49, 50, 50, 51, 57],
     [58, 58, 59, 59, 63, 63, 65, 90],
     [91, 91, 93, 93, 95, 95, 97, 122],
     [126, 126, 33, 33, 36, 36, 37, 37],
     [38, 38, 39, 39, 40, 40, 41, 41],
     [42, 42, 43, 43, 45, 45, 46, 46],
     [47, 47, 48, 57, 58, 58, 59, 59],
     [63, 63, 65, 90, 91, 91, 93, 93],
     [95, 95, 97, 122, 126, 126, 33, 33],
     [36, 36, 37, 37, 38, 38, 39, 39],
     [40, 40, 41, 41, 42, 42, 43, 43],
     [45, 45, 46, 46, 47, 47, 48, 48],
     [49, 49, 50, 50, 51, 57, 58, 58],
     [59, 59, 63, 63, 65, 90, 91, 91],
     [93, 93, 95, 95, 97, 122, 126, 126],
     [33, 33, 36, 36, 37, 37, 38, 38],
     [39, 39, 40, 40, 41, 41, 42, 42],
     [43, 43, 45, 45, 46, 46, 47, 47],
     [48, 57, 58, 58, 59, 59, 63, 63],
     [65, 90, 91, 91, 93, 93, 95, 95],
     [97, 122, 126, 126, 9, 9, 13, 13],
     [32, 32, 33, 33, 36, 36, 37, 37],
     [38, 38, 39, 39, 40, 40, 41, 41],
     [42, 42, 43, 43, 45, 45, 46, 46],
     [47, 47, 48, 57, 58, 58, 59, 59],
     [63, 63, 65, 90, 91, 91, 93, 93],
     [95, 95, 97, 122, 126, 126, 33, 33],
     [36, 36, 37, 37, 38, 38, 39, 39],
     [40, 40, 41, 41, 42, 42, 43, 43],
     [45, 45, 46, 46, 47, 47, 48, 57],
     [58, 58, 59, 59, 63, 63, 65, 90],
     [91, 91, 93, 93, 95, 95, 97, 122],
     [126, 126, 33, 33, 36, 36, 37, 37],
     [38, 38, 39, 39, 40, 40, 41, 41],
     [42, 42, 43, 43, 45, 45, 46, 46],
     [47, 47, 48, 57, 58, 58, 59, 59],
     [63, 63, 65, 90, 91, 91, 93, 93],
     [95, 95, 97, 122, 126, 126, 33, 33],
     [36, 36, 37, 37, 38, 38, 39, 39],
     [40, 40, 41, 41, 42, 42, 43, 43],
     [45, 45, 46, 46, 47, 47, 48, 52],
     [53, 53, 54, 57, 58, 58, 59, 59],
     [63, 63, 65, 90, 91, 91, 93, 93],
     [95, 95, 97, 122, 126, 126, 33, 33],
     [36, 36, 37, 37, 38, 38, 39, 39],
     [40, 40, 41, 41, 42, 42, 43, 43],
     [45, 45, 46, 46, 47, 47, 48, 53],
     [54, 57, 58, 58, 59, 59, 63, 63],
     [65, 90, 91, 91, 93, 93, 95, 95],
     [97, 122, 126, 126, 33, 33, 36, 36],
     [37, 37, 38, 38, 39, 39, 40, 40],
     [41, 41, 42, 42, 43, 43, 45, 45],
     [46, 46, 47, 47, 48, 57, 58, 58],
     [59, 59, 63, 63, 65, 90, 91, 91],
     [93, 93, 95, 95, 97, 122, 126, 126],
     [33, 33, 36, 36, 37, 37, 38, 38],
     [39, 39, 40, 40, 41, 41, 42, 42],
     [43, 43, 45, 45, 46, 46, 47, 47],
     [48, 57, 58, 58, 59, 59, 63, 63],
     [65, 90, 91, 91, 93, 93, 95, 95],
     [97, 122, 126, 126, 33, 33, 36, 36],
     [37, 37, 38, 38, 39, 39, 40, 40],
     [41, 41, 42, 42, 43, 43, 45, 45],
     [46, 46, 47, 47, 48, 52, 53, 53],
     [54, 57, 58, 58, 59, 59, 63, 63],
     [65, 90, 91, 91, 93, 93, 95, 95],
     [97, 122, 126, 126, 33, 33, 36, 36],
     [37, 37, 38, 38, 39, 39, 40, 40],
     [41, 41, 42, 42, 43, 43, 45, 45],
     [46, 46, 47, 47, 48, 53, 54, 57],
     [58, 58, 59, 59, 63, 63, 65, 90],
     [91, 91, 93, 93, 95, 95, 97, 122],
     [126, 126, 33, 33, 36, 36, 37, 37],
     [38, 38, 39, 39, 40, 40, 41, 41],
     [42, 42, 43, 43, 45, 45, 46, 46],
     [47, 47, 48, 57, 58, 58, 59, 59],
     [63, 63, 65, 90, 91, 91, 93, 93],
     [95, 95, 97, 122, 126, 126, 33, 33],
     [36, 36, 37, 37, 38, 38, 39, 39],
     [40, 40, 41, 41, 42, 42, 43, 43],
     [45, 45, 46, 46, 47, 47, 48, 57],
     [58, 58, 59, 59, 63, 63, 65, 90],
     [91, 91, 93, 93, 95, 95, 97, 122],
     [126, 126, 33, 33, 36, 36, 37, 37],
     [38, 38, 39, 39, 40, 40, 41, 41],
     [42, 42, 43, 43, 45, 45, 46, 46],
     [47, 47, 48, 52, 53, 53, 54, 57],
     [58, 58, 59, 59, 63, 63, 65, 90],
     [91, 91, 93, 93, 95, 95, 97, 122],
     [126, 126, 33, 33, 36, 36, 37, 37],
     [38, 38, 39, 39, 40, 40, 41, 41],
     [42, 42, 43, 43, 45, 45, 46, 46],
     [47, 47, 48, 53, 54, 57, 58, 58],
     [59, 59, 63, 63, 65, 90, 91, 91],
     [93, 93, 95, 95, 97, 122, 126, 126],
     [33, 33, 36, 36, 37, 37, 38, 38],
     [39, 39, 40, 40, 41, 41, 42, 42],
     [43, 43, 45, 45, 46, 46, 47, 47],
     [48, 57, 58, 58, 59, 59, 63, 63],
     [65, 65, 66, 66, 67, 67, 68, 68],
     [69, 69, 70, 70, 71, 90, 91, 91],
     [93, 93, 95, 95, 97, 97, 98, 98],
     [99, 99, 100, 100, 101, 101, 102, 102],
     [103, 122, 126, 126, 33, 33, 36, 36],
     [37, 37, 38, 38, 39, 39, 40, 40],
     [41, 41, 42, 42, 43, 43, 45, 45],
     [46, 46, 47, 47, 48, 57, 58, 58],
     [59, 59, 63, 63, 65, 65, 66, 66],
     [67, 67, 68, 68, 69, 69, 70, 70],
     [71, 90, 91, 91, 93, 93, 95, 95],
     [97, 97, 98, 98, 99, 99, 100, 100],
     [101, 101, 102, 102, 103, 122, 126, 126],
     [33, 33, 36, 36, 37, 37, 38, 38],
     [39, 39, 40, 40, 41, 41, 42, 42],
     [43, 43, 45, 45, 46, 46, 47, 47],
     [48, 57, 58, 58, 59, 59, 63, 63],
     [65, 90, 91, 91, 93, 93, 95, 95],
     [97, 122, 126, 126, 33, 33, 36, 36],
     [37, 37, 38, 38, 39, 39, 40, 40],
     [41, 41, 42, 42, 43, 43, 45, 45],
     [46, 46, 47, 47, 48, 57, 58, 58],
     [59, 59, 63, 63, 65, 65, 66, 66]]"

definition sup_cond_keys_72 :: "int list list" where
  "sup_cond_keys_72 =
    [[67, 67, 68, 68, 69, 69, 70, 70],
     [71, 90, 91, 91, 93, 93, 95, 95],
     [97, 97, 98, 98, 99, 99, 100, 100],
     [101, 101, 102, 102, 103, 122, 126, 126],
     [33, 33, 36, 36, 37, 37, 38, 38],
     [39, 39, 40, 40, 41, 41, 42, 42],
     [43, 43, 45, 45, 46, 46, 47, 47],
     [48, 57, 58, 58, 59, 59, 63, 63],
     [65, 65, 66, 66, 67, 67, 68, 68],
     [69, 69, 70, 70, 71, 90, 91, 91],
     [93, 93, 95, 95, 97, 97, 98, 98],
     [99, 99, 100, 100, 101, 101, 102, 102],
     [103, 122, 126, 126, 33, 33, 36, 36],
     [37, 37, 38, 38, 39, 39, 40, 40],
     [41, 41, 42, 42, 43, 43, 45, 45],
     [46, 46, 47, 47, 48, 57, 58, 58],
     [59, 59, 63, 63, 65, 65, 66, 66],
     [67, 67, 68, 68, 69, 69, 70, 70],
     [71, 90, 91, 91, 93, 93, 95, 95],
     [97, 97, 98, 98, 99, 99, 100, 100],
     [101, 101, 102, 102, 103, 122, 126, 126],
     [33, 33, 36, 36, 37, 37, 38, 38],
     [39, 39, 40, 40, 41, 41, 42, 42],
     [43, 43, 45, 45, 46, 46, 47, 47],
     [48, 57, 58, 58, 59, 59, 63, 63],
     [65, 65, 66, 66, 67, 67, 68, 68],
     [69, 69, 70, 70, 71, 90, 91, 91],
     [93, 93, 95, 95, 97, 97, 98, 98],
     [99, 99, 100, 100, 101, 101, 102, 102],
     [103, 122, 126, 126, 33, 33, 36, 36],
     [37, 37, 38, 38, 39, 39, 40, 40],
     [41, 41, 42, 42, 43, 43, 45, 45],
     [46, 46, 47, 47, 48, 57, 58, 58],
     [59, 59, 63, 63, 65, 65, 66, 66],
     [67, 67, 68, 68, 69, 69, 70, 70],
     [71, 90, 91, 91, 93, 93, 95, 95],
     [97, 97, 98, 98, 99, 99, 100, 100],
     [101, 101, 102, 102, 103, 122, 126, 126],
     [33, 33, 36, 36, 37, 37, 38, 38],
     [39, 39, 40, 40, 41, 41, 42, 42],
     [43, 43, 45, 45, 46, 46, 47, 47],
     [48, 57, 58, 58, 59, 59, 63, 63],
     [65, 65, 66, 66, 67, 67, 68, 68],
     [69, 69, 70, 70, 71, 90, 91, 91],
     [93, 93, 95, 95, 97, 97, 98, 98],
     [99, 99, 100, 100, 101, 101, 102, 102],
     [103, 122, 126, 126, 33, 33, 36, 36],
     [37, 37, 38, 38, 39, 39, 40, 40],
     [41, 41, 42, 42, 43, 43, 45, 45],
     [46, 46, 47, 47, 48, 57, 58, 58],
     [59, 59, 63, 63, 65, 65, 66, 66],
     [67, 67, 68, 68, 69, 69, 70, 70],
     [71, 90, 91, 91, 93, 93, 95, 95],
     [97, 97, 98, 98, 99, 99, 100, 100],
     [101, 101, 102, 102, 103, 122, 126, 126],
     [33, 33, 36, 36, 37, 37, 38, 38],
     [39, 39, 40, 40, 41, 41, 42, 42],
     [43, 43, 45, 45, 46, 46, 47, 47],
     [48, 52, 53, 53, 54, 57, 58, 58],
     [59, 59, 63, 63, 65, 65, 66, 66],
     [67, 67, 68, 68, 69, 69, 70, 70],
     [71, 90, 91, 91, 93, 93, 95, 95],
     [97, 97, 98, 98, 99, 99, 100, 100],
     [101, 101, 102, 102, 103, 122, 126, 126],
     [33, 33, 36, 36, 37, 37, 38, 38],
     [39, 39, 40, 40, 41, 41, 42, 42],
     [43, 43, 45, 45, 46, 46, 47, 47],
     [48, 53, 54, 57, 58, 58, 59, 59],
     [63, 63, 65, 65, 66, 66, 67, 67],
     [68, 68, 69, 69, 70, 70, 71, 90],
     [91, 91, 93, 93, 95, 95, 97, 97],
     [98, 98, 99, 99, 100, 100, 101, 101],
     [102, 102, 103, 122, 126, 126, 33, 33],
     [36, 36, 37, 37, 38, 38, 39, 39],
     [40, 40, 41, 41, 42, 42, 43, 43],
     [45, 45, 46, 46, 47, 47, 48, 57],
     [58, 58, 59, 59, 63, 63, 65, 65],
     [66, 66, 67, 67, 68, 68, 69, 69],
     [70, 70, 71, 90, 91, 91, 93, 93],
     [95, 95, 97, 97, 98, 98, 99, 99],
     [100, 100, 101, 101, 102, 102, 103, 122],
     [126, 126, 33, 33, 36, 36, 37, 37],
     [38, 38, 39, 39, 40, 40, 41, 41],
     [42, 42, 43, 43, 45, 45, 46, 46],
     [47, 47, 48, 57, 58, 58, 59, 59],
     [63, 63, 65, 65, 66, 66, 67, 67],
     [68, 68, 69, 69, 70, 70, 71, 90],
     [91, 91, 93, 93, 95, 95, 97, 97],
     [98, 98, 99, 99, 100, 100, 101, 101],
     [102, 102, 103, 122, 126, 126, 33, 33],
     [36, 36, 37, 37, 38, 38, 39, 39],
     [40, 40, 41, 41, 42, 42, 43, 43],
     [45, 45, 46, 46, 47, 47, 48, 57],
     [58, 58, 59, 59, 63, 63, 65, 65],
     [66, 66, 67, 67, 68, 68, 69, 69],
     [70, 70, 71, 90, 91, 91, 93, 93],
     [95, 95, 97, 97, 98, 98, 99, 99],
     [100, 100, 101, 101, 102, 102, 103, 122],
     [126, 126, 33, 33, 36, 36, 37, 37],
     [38, 38, 39, 39, 40, 40, 41, 41],
     [42, 42, 43, 43, 45, 45, 46, 46],
     [47, 47, 48, 57, 58, 58, 59, 59],
     [63, 63, 65, 65, 66, 66, 67, 67],
     [68, 68, 69, 69, 70, 70, 71, 90],
     [91, 91, 93, 93, 95, 95, 97, 97],
     [98, 98, 99, 99, 100, 100, 101, 101],
     [102, 102, 103, 122, 126, 126, 33, 33],
     [36, 36, 37, 37, 38, 38, 39, 39],
     [40, 40, 41, 41, 42, 42, 43, 43],
     [45, 45, 46, 46, 47, 47, 48, 48],
     [49, 49, 50, 50, 51, 57, 58, 58],
     [59, 59, 63, 63, 65, 65, 66, 66],
     [67, 67, 68, 68, 69, 69, 70, 70],
     [71, 90, 91, 91, 93, 93, 95, 95],
     [97, 97, 98, 98, 99, 99, 100, 100],
     [101, 101, 102, 102, 103, 122, 126, 126],
     [33, 33, 36, 36, 37, 37, 38, 38],
     [39, 39, 40, 40, 41, 41, 42, 42],
     [43, 43, 45, 45, 46, 46, 47, 47],
     [48, 57, 58, 58, 59, 59, 63, 63],
     [65, 65, 66, 66, 67, 67, 68, 68],
     [69, 69, 70, 70, 71, 90, 91, 91],
     [93, 93, 95, 95, 97, 97, 98, 98],
     [99, 99, 100, 100, 101, 101, 102, 102],
     [103, 122, 126, 126, 33, 33, 36, 36],
     [37, 37, 38, 38, 39, 39, 40, 40],
     [41, 41, 42, 42, 43, 43, 45, 45],
     [46, 46, 47, 47, 48, 57, 58, 58],
     [59, 59, 63, 63, 65, 65, 66, 66],
     [67, 67, 68, 68, 69, 69, 70, 70],
     [71, 90, 91, 91, 93, 93, 95, 95],
     [97, 97, 98, 98, 99, 99, 100, 100],
     [101, 101, 102, 102, 103, 122, 126, 126],
     [33, 33, 36, 36, 37, 37, 38, 38],
     [39, 39, 40, 40, 41, 41, 42, 42],
     [43, 43, 45, 45, 46, 46, 47, 47],
     [48, 57, 58, 58, 59, 59, 63, 63],
     [65, 65, 66, 66, 67, 67, 68, 68],
     [69, 69, 70, 70, 71, 90, 91, 91],
     [93, 93, 95, 95, 97, 97, 98, 98],
     [99, 99, 100, 100, 101, 101, 102, 102],
     [103, 122, 126, 126, 33, 33, 36, 36],
     [37, 37, 38, 38, 39, 39, 40, 40],
     [41, 41, 42, 42, 43, 43, 45, 45],
     [46, 46, 47, 47, 48, 57, 58, 58],
     [59, 59, 63, 63, 65, 90, 91, 91],
     [93, 93, 95, 95, 97, 122, 126, 126],
     [33, 33, 36, 36, 37, 37, 38, 38],
     [39, 39, 40, 40, 41, 41, 42, 42],
     [43, 43, 45, 45, 46, 46, 47, 47]]"

definition sup_cond_keys_73 :: "int list list" where
  "sup_cond_keys_73 =
    [[48, 57, 58, 58, 59, 59, 63, 63],
     [65, 65, 66, 66, 67, 67, 68, 68],
     [69, 69, 70, 70, 71, 90, 91, 91],
     [93, 93, 95, 95, 97, 97, 98, 98],
     [99, 99, 100, 100, 101, 101, 102, 102],
     [103, 122, 126, 126, 33, 33, 36, 36],
     [37, 37, 38, 38, 39, 39, 40, 40],
     [41, 41, 42, 42, 43, 43, 45, 45],
     [46, 46, 47, 47, 48, 57, 58, 58],
     [59, 59, 63, 63, 65, 65, 66, 66],
     [67, 67, 68, 68, 69, 69, 70, 70],
     [71, 90, 91, 91, 93, 93, 95, 95],
     [97, 97, 98, 98, 99, 99, 100, 100],
     [101, 101, 102, 102, 103, 122, 126, 126],
     [33, 33, 36, 36, 37, 37, 38, 38],
     [39, 39, 40, 40, 41, 41, 42, 42],
     [43, 43, 45, 45, 46, 46, 47, 47],
     [48, 57, 58, 58, 59, 59, 63, 63],
     [65, 65, 66, 66, 67, 67, 68, 68],
     [69, 69, 70, 70, 71, 90, 91, 91],
     [93, 93, 95, 95, 97, 97, 98, 98],
     [99, 99, 100, 100, 101, 101, 102, 102],
     [103, 122, 126, 126, 33, 33, 36, 36],
     [37, 37, 38, 38, 39, 39, 40, 40],
     [41, 41, 42, 42, 43, 43, 45, 45],
     [46, 46, 47, 47, 48, 57, 58, 58],
     [59, 59, 63, 63, 65, 65, 66, 66],
     [67, 67, 68, 68, 69, 69, 70, 70],
     [71, 90, 91, 91, 93, 93, 95, 95],
     [97, 97, 98, 98, 99, 99, 100, 100],
     [101, 101, 102, 102, 103, 122, 126, 126],
     [33, 33, 36, 36, 37, 37, 38, 38],
     [39, 39, 40, 40, 41, 41, 42, 42],
     [43, 43, 45, 45, 46, 46, 47, 47],
     [48, 52, 53, 53, 54, 57, 58, 58],
     [59, 59, 63, 63, 65, 65, 66, 66],
     [67, 67, 68, 68, 69, 69, 70, 70],
     [71, 90, 91, 91, 93, 93, 95, 95],
     [97, 97, 98, 98, 99, 99, 100, 100],
     [101, 101, 102, 102, 103, 122, 126, 126],
     [33, 33, 36, 36, 37, 37, 38, 38],
     [39, 39, 40, 40, 41, 41, 42, 42],
     [43, 43, 45, 45, 46, 46, 47, 47],
     [48, 53, 54, 57, 58, 58, 59, 59],
     [63, 63, 65, 65, 66, 66, 67, 67],
     [68, 68, 69, 69, 70, 70, 71, 90],
     [91, 91, 93, 93, 95, 95, 97, 97],
     [98, 98, 99, 99, 100, 100, 101, 101],
     [102, 102, 103, 122, 126, 126, 33, 33],
     [36, 36, 37, 37, 38, 38, 39, 39],
     [40, 40, 41, 41, 42, 42, 43, 43],
     [45, 45, 46, 46, 47, 47, 48, 57],
     [58, 58, 59, 59, 63, 63, 65, 65],
     [66, 66, 67, 67, 68, 68, 69, 69],
     [70, 70, 71, 90, 91, 91, 93, 93],
     [95, 95, 97, 97, 98, 98, 99, 99],
     [100, 100, 101, 101, 102, 102, 103, 122],
     [126, 126, 33, 33, 36, 36, 37, 37],
     [38, 38, 39, 39, 40, 40, 41, 41],
     [42, 42, 43, 43, 45, 45, 46, 46],
     [47, 47, 48, 57, 58, 58, 59, 59],
     [63, 63, 65, 65, 66, 66, 67, 67],
     [68, 68, 69, 69, 70, 70, 71, 90],
     [91, 91, 93, 93, 95, 95, 97, 97],
     [98, 98, 99, 99, 100, 100, 101, 101],
     [102, 102, 103, 122, 126, 126, 33, 33],
     [36, 36, 37, 37, 38, 38, 39, 39],
     [40, 40, 41, 41, 42, 42, 43, 43],
     [45, 45, 46, 46, 47, 47, 48, 57],
     [58, 58, 59, 59, 63, 63, 65, 65],
     [66, 66, 67, 67, 68, 68, 69, 69],
     [70, 70, 71, 90, 91, 91, 93, 93],
     [95, 95, 97, 97, 98, 98, 99, 99],
     [100, 100, 101, 101, 102, 102, 103, 122],
     [126, 126, 33, 33, 36, 36, 37, 37],
     [38, 38, 39, 39, 40, 40, 41, 41],
     [42, 42, 43, 43, 45, 45, 46, 46],
     [47, 47, 48, 48, 49, 49, 50, 50],
     [51, 57, 58, 58, 59, 59, 63, 63],
     [65, 65, 66, 66, 67, 67, 68, 68],
     [69, 69, 70, 70, 71, 90, 91, 91],
     [93, 93, 95, 95, 97, 97, 98, 98],
     [99, 99, 100, 100, 101, 101, 102, 102],
     [103, 122, 126, 126, 33, 33, 36, 36],
     [37, 37, 38, 38, 39, 39, 40, 40],
     [41, 41, 42, 42, 43, 43, 45, 45],
     [46, 46, 47, 47, 48, 57, 58, 58],
     [59, 59, 63, 63, 65, 65, 66, 66],
     [67, 67, 68, 68, 69, 69, 70, 70],
     [71, 90, 91, 91, 93, 93, 95, 95],
     [97, 97, 98, 98, 99, 99, 100, 100],
     [101, 101, 102, 102, 103, 122, 126, 126],
     [33, 33, 36, 36, 37, 37, 38, 38],
     [39, 39, 40, 40, 41, 41, 42, 42],
     [43, 43, 45, 45, 46, 46, 47, 47],
     [48, 57, 58, 58, 59, 59, 63, 63],
     [65, 65, 66, 66, 67, 67, 68, 68],
     [69, 69, 70, 70, 71, 90, 91, 91],
     [93, 93, 95, 95, 97, 97, 98, 98],
     [99, 99, 100, 100, 101, 101, 102, 102],
     [103, 122, 126, 126, 33, 33, 36, 36],
     [37, 37, 38, 38, 39, 39, 40, 40],
     [41, 41, 42, 42, 43, 43, 45, 45],
     [46, 46, 47, 47, 48, 57, 58, 58],
     [59, 59, 63, 63, 65, 65, 66, 66],
     [67, 67, 68, 68, 69, 69, 70, 70],
     [71, 90, 91, 91, 93, 93, 95, 95],
     [97, 97, 98, 98, 99, 99, 100, 100],
     [101, 101, 102, 102, 103, 122, 126, 126],
     [33, 33, 36, 36, 37, 37, 38, 38],
     [39, 39, 40, 40, 41, 41, 42, 42],
     [43, 43, 45, 45, 46, 46, 47, 47],
     [48, 57, 58, 58, 59, 59, 63, 63],
     [65, 90, 91, 91, 93, 93, 95, 95],
     [97, 122, 126, 126, 33, 33, 36, 36],
     [37, 37, 38, 38, 39, 39, 40, 40],
     [41, 41, 42, 42, 43, 43, 45, 45],
     [46, 46, 47, 47, 48, 48, 49, 49],
     [50, 50, 51, 57, 58, 58, 59, 59],
     [63, 63, 65, 65, 66, 66, 67, 67],
     [68, 68, 69, 69, 70, 70, 71, 90],
     [91, 91, 93, 93, 95, 95, 97, 97],
     [98, 98, 99, 99, 100, 100, 101, 101],
     [102, 102, 103, 122, 126, 126, 33, 33],
     [36, 36, 37, 37, 38, 38, 39, 39],
     [40, 40, 41, 41, 42, 42, 43, 43],
     [45, 45, 46, 46, 47, 47, 48, 57],
     [58, 58, 59, 59, 63, 63, 65, 65],
     [66, 66, 67, 67, 68, 68, 69, 69],
     [70, 70, 71, 90, 91, 91, 93, 93],
     [95, 95, 97, 97, 98, 98, 99, 99],
     [100, 100, 101, 101, 102, 102, 103, 122],
     [126, 126, 33, 33, 36, 36, 37, 37],
     [38, 38, 39, 39, 40, 40, 41, 41],
     [42, 42, 43, 43, 45, 45, 46, 46],
     [47, 47, 48, 57, 58, 58, 59, 59],
     [63, 63, 65, 65, 66, 66, 67, 67],
     [68, 68, 69, 69, 70, 70, 71, 90],
     [91, 91, 93, 93, 95, 95, 97, 97],
     [98, 98, 99, 99, 100, 100, 101, 101],
     [102, 102, 103, 122, 126, 126, 33, 33],
     [36, 36, 37, 37, 38, 38, 39, 39],
     [40, 40, 41, 41, 42, 42, 43, 43],
     [45, 45, 46, 46, 47, 47, 48, 57],
     [58, 58, 59, 59, 63, 63, 65, 65],
     [66, 66, 67, 67, 68, 68, 69, 69],
     [70, 70, 71, 90, 91, 91, 93, 93],
     [95, 95, 97, 97, 98, 98, 99, 99],
     [100, 100, 101, 101, 102, 102, 103, 122],
     [126, 126, 33, 33, 36, 36, 37, 37]]"

definition sup_cond_keys_74 :: "int list list" where
  "sup_cond_keys_74 =
    [[38, 38, 39, 39, 40, 40, 41, 41],
     [42, 42, 43, 43, 45, 45, 46, 46],
     [47, 47, 48, 52, 53, 53, 54, 57],
     [58, 58, 59, 59, 63, 63, 65, 65],
     [66, 66, 67, 67, 68, 68, 69, 69],
     [70, 70, 71, 90, 91, 91, 93, 93],
     [95, 95, 97, 97, 98, 98, 99, 99],
     [100, 100, 101, 101, 102, 102, 103, 122],
     [126, 126, 33, 33, 36, 36, 37, 37],
     [38, 38, 39, 39, 40, 40, 41, 41],
     [42, 42, 43, 43, 45, 45, 46, 46],
     [47, 47, 48, 53, 54, 57, 58, 58],
     [59, 59, 63, 63, 65, 65, 66, 66],
     [67, 67, 68, 68, 69, 69, 70, 70],
     [71, 90, 91, 91, 93, 93, 95, 95],
     [97, 97, 98, 98, 99, 99, 100, 100],
     [101, 101, 102, 102, 103, 122, 126, 126],
     [33, 33, 36, 36, 37, 37, 38, 38],
     [39, 39, 40, 40, 41, 41, 42, 42],
     [43, 43, 45, 45, 46, 46, 47, 47],
     [48, 57, 58, 58, 59, 59, 63, 63],
     [65, 65, 66, 66, 67, 67, 68, 68],
     [69, 69, 70, 70, 71, 90, 91, 91],
     [93, 93, 95, 95, 97, 97, 98, 98],
     [99, 99, 100, 100, 101, 101, 102, 102],
     [103, 122, 126, 126, 33, 33, 36, 36],
     [37, 37, 38, 38, 39, 39, 40, 40],
     [41, 41, 42, 42, 43, 43, 45, 45],
     [46, 46, 47, 47, 48, 57, 58, 58],
     [59, 59, 63, 63, 65, 65, 66, 66],
     [67, 67, 68, 68, 69, 69, 70, 70],
     [71, 90, 91, 91, 93, 93, 95, 95],
     [97, 97, 98, 98, 99, 99, 100, 100],
     [101, 101, 102, 102, 103, 122, 126, 126],
     [33, 33, 36, 36, 37, 37, 38, 38],
     [39, 39, 40, 40, 41, 41, 42, 42],
     [43, 43, 45, 45, 46, 46, 47, 47],
     [48, 57, 58, 58, 59, 59, 63, 63],
     [65, 65, 66, 66, 67, 67, 68, 68],
     [69, 69, 70, 70, 71, 90, 91, 91],
     [93, 93, 95, 95, 97, 97, 98, 98],
     [99, 99, 100, 100, 101, 101, 102, 102],
     [103, 122, 126, 126, 33, 33, 36, 36],
     [37, 37, 38, 38, 39, 39, 40, 40],
     [41, 41, 42, 42, 43, 43, 45, 45],
     [46, 46, 47, 47, 48, 48, 49, 49],
     [50, 50, 51, 57, 58, 58, 59, 59],
     [63, 63, 65, 65, 66, 66, 67, 67],
     [68, 68, 69, 69, 70, 70, 71, 90],
     [91, 91, 93, 93, 95, 95, 97, 97],
     [98, 98, 99, 99, 100, 100, 101, 101],
     [102, 102, 103, 122, 126, 126, 33, 33],
     [36, 36, 37, 37, 38, 38, 39, 39],
     [40, 40, 41, 41, 42, 42, 43, 43],
     [45, 45, 46, 46, 47, 47, 48, 57],
     [58, 58, 59, 59, 63, 63, 65, 65],
     [66, 66, 67, 67, 68, 68, 69, 69],
     [70, 70, 71, 90, 91, 91, 93, 93],
     [95, 95, 97, 97, 98, 98, 99, 99],
     [100, 100, 101, 101, 102, 102, 103, 122],
     [126, 126, 33, 33, 36, 36, 37, 37],
     [38, 38, 39, 39, 40, 40, 41, 41],
     [42, 42, 43, 43, 45, 45, 46, 46],
     [47, 47, 48, 57, 58, 58, 59, 59],
     [63, 63, 65, 65, 66, 66, 67, 67],
     [68, 68, 69, 69, 70, 70, 71, 90],
     [91, 91, 93, 93, 95, 95, 97, 97],
     [98, 98, 99, 99, 100, 100, 101, 101],
     [102, 102, 103, 122, 126, 126, 33, 33],
     [36, 36, 37, 37, 38, 38, 39, 39],
     [40, 40, 41, 41, 42, 42, 43, 43],
     [45, 45, 46, 46, 47, 47, 48, 57],
     [58, 58, 59, 59, 63, 63, 65, 65],
     [66, 66, 67, 67, 68, 68, 69, 69],
     [70, 70, 71, 90, 91, 91, 93, 93],
     [95, 95, 97, 97, 98, 98, 99, 99],
     [100, 100, 101, 101, 102, 102, 103, 122],
     [126, 126, 33, 33, 36, 36, 37, 37],
     [38, 38, 39, 39, 40, 40, 41, 41],
     [42, 42, 43, 43, 45, 45, 46, 46],
     [47, 47, 48, 57, 58, 58, 59, 59],
     [63, 63, 65, 90, 91, 91, 93, 93],
     [95, 95, 97, 122, 126, 126, 33, 33],
     [36, 36, 37, 37, 38, 38, 39, 39],
     [40, 40, 41, 41, 42, 42, 43, 43],
     [45, 45, 46, 46, 47, 47, 48, 48],
     [49, 49, 50, 50, 51, 57, 58, 58],
     [59, 59, 63, 63, 65, 65, 66, 66],
     [67, 67, 68, 68, 69, 69, 70, 70],
     [71, 90, 91, 91, 93, 93, 95, 95],
     [97, 97, 98, 98, 99, 99, 100, 100],
     [101, 101, 102, 102, 103, 122, 126, 126],
     [33, 33, 36, 36, 37, 37, 38, 38],
     [39, 39, 40, 40, 41, 41, 42, 42],
     [43, 43, 45, 45, 46, 46, 47, 47],
     [48, 57, 58, 58, 59, 59, 63, 63],
     [65, 65, 66, 66, 67, 67, 68, 68],
     [69, 69, 70, 70, 71, 90, 91, 91],
     [93, 93, 95, 95, 97, 97, 98, 98],
     [99, 99, 100, 100, 101, 101, 102, 102],
     [103, 122, 126, 126, 33, 33, 36, 36],
     [37, 37, 38, 38, 39, 39, 40, 40],
     [41, 41, 42, 42, 43, 43, 45, 45],
     [46, 46, 47, 47, 48, 57, 58, 58],
     [59, 59, 63, 63, 65, 65, 66, 66],
     [67, 67, 68, 68, 69, 69, 70, 70],
     [71, 90, 91, 91, 93, 93, 95, 95],
     [97, 97, 98, 98, 99, 99, 100, 100],
     [101, 101, 102, 102, 103, 122, 126, 126],
     [33, 33, 36, 36, 37, 37, 38, 38],
     [39, 39, 40, 40, 41, 41, 42, 42],
     [43, 43, 45, 45, 46, 46, 47, 47],
     [48, 57, 58, 58, 59, 59, 63, 63],
     [65, 65, 66, 66, 67, 67, 68, 68],
     [69, 69, 70, 70, 71, 90, 91, 91],
     [93, 93, 95, 95, 97, 97, 98, 98],
     [99, 99, 100, 100, 101, 101, 102, 102],
     [103, 122, 126, 126, 33, 33, 36, 36],
     [37, 37, 38, 38, 39, 39, 40, 40],
     [41, 41, 42, 42, 43, 43, 45, 45],
     [46, 46, 47, 47, 48, 52, 53, 53],
     [54, 57, 58, 58, 59, 59, 63, 63],
     [65, 65, 66, 66, 67, 67, 68, 68],
     [69, 69, 70, 70, 71, 90, 91, 91],
     [93, 93, 95, 95, 97, 97, 98, 98],
     [99, 99, 100, 100, 101, 101, 102, 102],
     [103, 122, 126, 126, 33, 33, 36, 36],
     [37, 37, 38, 38, 39, 39, 40, 40],
     [41, 41, 42, 42, 43, 43, 45, 45],
     [46, 46, 47, 47, 48, 53, 54, 57],
     [58, 58, 59, 59, 63, 63, 65, 65],
     [66, 66, 67, 67, 68, 68, 69, 69],
     [70, 70, 71, 90, 91, 91, 93, 93],
     [95, 95, 97, 97, 98, 98, 99, 99],
     [100, 100, 101, 101, 102, 102, 103, 122],
     [126, 126, 33, 33, 36, 36, 37, 37],
     [38, 38, 39, 39, 40, 40, 41, 41],
     [42, 42, 43, 43, 45, 45, 46, 46],
     [47, 47, 48, 57, 58, 58, 59, 59],
     [63, 63, 65, 65, 66, 66, 67, 67],
     [68, 68, 69, 69, 70, 70, 71, 90],
     [91, 91, 93, 93, 95, 95, 97, 97],
     [98, 98, 99, 99, 100, 100, 101, 101],
     [102, 102, 103, 122, 126, 126, 33, 33],
     [36, 36, 37, 37, 38, 38, 39, 39],
     [40, 40, 41, 41, 42, 42, 43, 43],
     [45, 45, 46, 46, 47, 47, 48, 57],
     [58, 58, 59, 59, 63, 63, 65, 65],
     [66, 66, 67, 67, 68, 68, 69, 69],
     [70, 70, 71, 90, 91, 91, 93, 93]]"

definition sup_cond_keys_75 :: "int list list" where
  "sup_cond_keys_75 =
    [[95, 95, 97, 97, 98, 98, 99, 99],
     [100, 100, 101, 101, 102, 102, 103, 122],
     [126, 126, 33, 33, 36, 36, 37, 37],
     [38, 38, 39, 39, 40, 40, 41, 41],
     [42, 42, 43, 43, 45, 45, 46, 46],
     [47, 47, 48, 57, 58, 58, 59, 59],
     [63, 63, 65, 65, 66, 66, 67, 67],
     [68, 68, 69, 69, 70, 70, 71, 90],
     [91, 91, 93, 93, 95, 95, 97, 97],
     [98, 98, 99, 99, 100, 100, 101, 101],
     [102, 102, 103, 122, 126, 126, 33, 33],
     [36, 36, 37, 37, 38, 38, 39, 39],
     [40, 40, 41, 41, 42, 42, 43, 43],
     [45, 45, 46, 46, 47, 47, 48, 48],
     [49, 49, 50, 50, 51, 57, 58, 58],
     [59, 59, 63, 63, 65, 65, 66, 66],
     [67, 67, 68, 68, 69, 69, 70, 70],
     [71, 90, 91, 91, 93, 93, 95, 95],
     [97, 97, 98, 98, 99, 99, 100, 100],
     [101, 101, 102, 102, 103, 122, 126, 126],
     [33, 33, 36, 36, 37, 37, 38, 38],
     [39, 39, 40, 40, 41, 41, 42, 42],
     [43, 43, 45, 45, 46, 46, 47, 47],
     [48, 57, 58, 58, 59, 59, 63, 63],
     [65, 65, 66, 66, 67, 67, 68, 68],
     [69, 69, 70, 70, 71, 90, 91, 91],
     [93, 93, 95, 95, 97, 97, 98, 98],
     [99, 99, 100, 100, 101, 101, 102, 102],
     [103, 122, 126, 126, 33, 33, 36, 36],
     [37, 37, 38, 38, 39, 39, 40, 40],
     [41, 41, 42, 42, 43, 43, 45, 45],
     [46, 46, 47, 47, 48, 57, 58, 58],
     [59, 59, 63, 63, 65, 65, 66, 66],
     [67, 67, 68, 68, 69, 69, 70, 70],
     [71, 90, 91, 91, 93, 93, 95, 95],
     [97, 97, 98, 98, 99, 99, 100, 100],
     [101, 101, 102, 102, 103, 122, 126, 126],
     [33, 33, 36, 36, 37, 37, 38, 38],
     [39, 39, 40, 40, 41, 41, 42, 42],
     [43, 43, 45, 45, 46, 46, 47, 47],
     [48, 57, 58, 58, 59, 59, 63, 63],
     [65, 65, 66, 66, 67, 67, 68, 68],
     [69, 69, 70, 70, 71, 90, 91, 91],
     [93, 93, 95, 95, 97, 97, 98, 98],
     [99, 99, 100, 100, 101, 101, 102, 102],
     [103, 122, 126, 126, 33, 33, 36, 36],
     [37, 37, 38, 38, 39, 39, 40, 40],
     [41, 41, 42, 42, 43, 43, 45, 45],
     [46, 46, 47, 47, 48, 57, 58, 58],
     [59, 59, 63, 63, 65, 90, 91, 91],
     [93, 93, 95, 95, 97, 122, 126, 126],
     [33, 33, 36, 36, 37, 37, 38, 38],
     [39, 39, 40, 40, 41, 41, 42, 42],
     [43, 43, 45, 45, 46, 46, 47, 47],
     [48, 48, 49, 49, 50, 50, 51, 57],
     [58, 58, 59, 59, 63, 63, 65, 65],
     [66, 66, 67, 67, 68, 68, 69, 69],
     [70, 70, 71, 90, 91, 91, 93, 93],
     [95, 95, 97, 97, 98, 98, 99, 99],
     [100, 100, 101, 101, 102, 102, 103, 122],
     [126, 126, 33, 33, 36, 36, 37, 37],
     [38, 38, 39, 39, 40, 40, 41, 41],
     [42, 42, 43, 43, 45, 45, 46, 46],
     [47, 47, 48, 57, 58, 58, 59, 59],
     [63, 63, 65, 65, 66, 66, 67, 67],
     [68, 68, 69, 69, 70, 70, 71, 90],
     [91, 91, 93, 93, 95, 95, 97, 97],
     [98, 98, 99, 99, 100, 100, 101, 101],
     [102, 102, 103, 122, 126, 126, 33, 33],
     [36, 36, 37, 37, 38, 38, 39, 39],
     [40, 40, 41, 41, 42, 42, 43, 43],
     [45, 45, 46, 46, 47, 47, 48, 57],
     [58, 58, 59, 59, 63, 63, 65, 65],
     [66, 66, 67, 67, 68, 68, 69, 69],
     [70, 70, 71, 90, 91, 91, 93, 93],
     [95, 95, 97, 97, 98, 98, 99, 99],
     [100, 100, 101, 101, 102, 102, 103, 122],
     [126, 126, 33, 33, 36, 36, 37, 37],
     [38, 38, 39, 39, 40, 40, 41, 41],
     [42, 42, 43, 43, 45, 45, 46, 46],
     [47, 47, 48, 57, 58, 58, 59, 59],
     [63, 63, 65, 65, 66, 66, 67, 67],
     [68, 68, 69, 69, 70, 70, 71, 90],
     [91, 91, 93, 93, 95, 95, 97, 97],
     [98, 98, 99, 99, 100, 100, 101, 101],
     [102, 102, 103, 122, 126, 126, 33, 33],
     [36, 36, 37, 37, 38, 38, 39, 39],
     [40, 40, 41, 41, 42, 42, 43, 43],
     [45, 45, 46, 46, 47, 47, 48, 52],
     [53, 53, 54, 57, 58, 58, 59, 59],
     [63, 63, 65, 65, 66, 66, 67, 67],
     [68, 68, 69, 69, 70, 70, 71, 90],
     [91, 91, 93, 93, 95, 95, 97, 97],
     [98, 98, 99, 99, 100, 100, 101, 101],
     [102, 102, 103, 122, 126, 126, 33, 33],
     [36, 36, 37, 37, 38, 38, 39, 39],
     [40, 40, 41, 41, 42, 42, 43, 43],
     [45, 45, 46, 46, 47, 47, 48, 53],
     [54, 57, 58, 58, 59, 59, 63, 63],
     [65, 65, 66, 66, 67, 67, 68, 68],
     [69, 69, 70, 70, 71, 90, 91, 91],
     [93, 93, 95, 95, 97, 97, 98, 98],
     [99, 99, 100, 100, 101, 101, 102, 102],
     [103, 122, 126, 126, 33, 33, 36, 36],
     [37, 37, 38, 38, 39, 39, 40, 40],
     [41, 41, 42, 42, 43, 43, 45, 45],
     [46, 46, 47, 47, 48, 57, 58, 58],
     [59, 59, 63, 63, 65, 65, 66, 66],
     [67, 67, 68, 68, 69, 69, 70, 70],
     [71, 90, 91, 91, 93, 93, 95, 95],
     [97, 97, 98, 98, 99, 99, 100, 100],
     [101, 101, 102, 102, 103, 122, 126, 126],
     [33, 33, 36, 36, 37, 37, 38, 38],
     [39, 39, 40, 40, 41, 41, 42, 42],
     [43, 43, 45, 45, 46, 46, 47, 47],
     [48, 57, 58, 58, 59, 59, 63, 63],
     [65, 65, 66, 66, 67, 67, 68, 68],
     [69, 69, 70, 70, 71, 90, 91, 91],
     [93, 93, 95, 95, 97, 97, 98, 98],
     [99, 99, 100, 100, 101, 101, 102, 102],
     [103, 122, 126, 126, 33, 33, 36, 36],
     [37, 37, 38, 38, 39, 39, 40, 40],
     [41, 41, 42, 42, 43, 43, 45, 45],
     [46, 46, 47, 47, 48, 57, 58, 58],
     [59, 59, 63, 63, 65, 65, 66, 66],
     [67, 67, 68, 68, 69, 69, 70, 70],
     [71, 90, 91, 91, 93, 93, 95, 95],
     [97, 97, 98, 98, 99, 99, 100, 100],
     [101, 101, 102, 102, 103, 122, 126, 126],
     [33, 33, 36, 36, 37, 37, 38, 38],
     [39, 39, 40, 40, 41, 41, 42, 42],
     [43, 43, 45, 45, 46, 46, 47, 47],
     [48, 48, 49, 49, 50, 50, 51, 57],
     [58, 58, 59, 59, 63, 63, 65, 65],
     [66, 66, 67, 67, 68, 68, 69, 69],
     [70, 70, 71, 90, 91, 91, 93, 93],
     [95, 95, 97, 97, 98, 98, 99, 99],
     [100, 100, 101, 101, 102, 102, 103, 122],
     [126, 126, 33, 33, 36, 36, 37, 37],
     [38, 38, 39, 39, 40, 40, 41, 41],
     [42, 42, 43, 43, 45, 45, 46, 46],
     [47, 47, 48, 57, 58, 58, 59, 59],
     [63, 63, 65, 65, 66, 66, 67, 67],
     [68, 68, 69, 69, 70, 70, 71, 90],
     [91, 91, 93, 93, 95, 95, 97, 97],
     [98, 98, 99, 99, 100, 100, 101, 101],
     [102, 102, 103, 122, 126, 126, 33, 33],
     [36, 36, 37, 37, 38, 38, 39, 39],
     [40, 40, 41, 41, 42, 42, 43, 43],
     [45, 45, 46, 46, 47, 47, 48, 57]]"

definition sup_cond_keys_76 :: "int list list" where
  "sup_cond_keys_76 =
    [[58, 58, 59, 59, 63, 63, 65, 65],
     [66, 66, 67, 67, 68, 68, 69, 69],
     [70, 70, 71, 90, 91, 91, 93, 93],
     [95, 95, 97, 97, 98, 98, 99, 99],
     [100, 100, 101, 101, 102, 102, 103, 122],
     [126, 126, 33, 33, 36, 36, 37, 37],
     [38, 38, 39, 39, 40, 40, 41, 41],
     [42, 42, 43, 43, 45, 45, 46, 46],
     [47, 47, 48, 57, 58, 58, 59, 59],
     [63, 63, 65, 65, 66, 66, 67, 67],
     [68, 68, 69, 69, 70, 70, 71, 90],
     [91, 91, 93, 93, 95, 95, 97, 97],
     [98, 98, 99, 99, 100, 100, 101, 101],
     [102, 102, 103, 122, 126, 126, 33, 33],
     [36, 36, 37, 37, 38, 38, 39, 39],
     [40, 40, 41, 41, 42, 42, 43, 43],
     [45, 45, 46, 46, 47, 47, 48, 57],
     [58, 58, 59, 59, 63, 63, 65, 90],
     [91, 91, 93, 93, 95, 95, 97, 122],
     [126, 126, 33, 33, 36, 36, 37, 37],
     [38, 38, 39, 39, 40, 40, 41, 41],
     [42, 42, 43, 43, 45, 45, 46, 46],
     [47, 47, 48, 48, 49, 49, 50, 50],
     [51, 57, 58, 58, 59, 59, 63, 63],
     [65, 65, 66, 66, 67, 67, 68, 68],
     [69, 69, 70, 70, 71, 90, 91, 91],
     [93, 93, 95, 95, 97, 97, 98, 98],
     [99, 99, 100, 100, 101, 101, 102, 102],
     [103, 122, 126, 126, 33, 33, 36, 36],
     [37, 37, 38, 38, 39, 39, 40, 40],
     [41, 41, 42, 42, 43, 43, 45, 45],
     [46, 46, 47, 47, 48, 57, 58, 58],
     [59, 59, 63, 63, 65, 65, 66, 66],
     [67, 67, 68, 68, 69, 69, 70, 70],
     [71, 90, 91, 91, 93, 93, 95, 95],
     [97, 97, 98, 98, 99, 99, 100, 100],
     [101, 101, 102, 102, 103, 122, 126, 126],
     [33, 33, 36, 36, 37, 37, 38, 38],
     [39, 39, 40, 40, 41, 41, 42, 42],
     [43, 43, 45, 45, 46, 46, 47, 47],
     [48, 57, 58, 58, 59, 59, 63, 63],
     [65, 65, 66, 66, 67, 67, 68, 68],
     [69, 69, 70, 70, 71, 90, 91, 91],
     [93, 93, 95, 95, 97, 97, 98, 98],
     [99, 99, 100, 100, 101, 101, 102, 102],
     [103, 122, 126, 126, 33, 33, 36, 36],
     [37, 37, 38, 38, 39, 39, 40, 40],
     [41, 41, 42, 42, 43, 43, 45, 45],
     [46, 46, 47, 47, 48, 57, 58, 58],
     [59, 59, 63, 63, 65, 65, 66, 66],
     [67, 67, 68, 68, 69, 69, 70, 70],
     [71, 90, 91, 91, 93, 93, 95, 95],
     [97, 97, 98, 98, 99, 99, 100, 100],
     [101, 101, 102, 102, 103, 122, 126, 126],
     [33, 33, 36, 36, 37, 37, 38, 38],
     [39, 39, 40, 40, 41, 41, 42, 42],
     [43, 43, 45, 45, 46, 46, 47, 47],
     [48, 52, 53, 53, 54, 57, 58, 58],
     [59, 59, 63, 63, 65, 65, 66, 66],
     [67, 67, 68, 68, 69, 69, 70, 70],
     [71, 90, 91, 91, 93, 93, 95, 95],
     [97, 97, 98, 98, 99, 99, 100, 100],
     [101, 101, 102, 102, 103, 122, 126, 126],
     [33, 33, 36, 36, 37, 37, 38, 38],
     [39, 39, 40, 40, 41, 41, 42, 42],
     [43, 43, 45, 45, 46, 46, 47, 47],
     [48, 53, 54, 57, 58, 58, 59, 59],
     [63, 63, 65, 65, 66, 66, 67, 67],
     [68, 68, 69, 69, 70, 70, 71, 90],
     [91, 91, 93, 93, 95, 95, 97, 97],
     [98, 98, 99, 99, 100, 100, 101, 101],
     [102, 102, 103, 122, 126, 126, 33, 33],
     [36, 36, 37, 37, 38, 38, 39, 39],
     [40, 40, 41, 41, 42, 42, 43, 43],
     [45, 45, 46, 46, 47, 47, 48, 57],
     [58, 58, 59, 59, 63, 63, 65, 65],
     [66, 66, 67, 67, 68, 68, 69, 69],
     [70, 70, 71, 90, 91, 91, 93, 93],
     [95, 95, 97, 97, 98, 98, 99, 99],
     [100, 100, 101, 101, 102, 102, 103, 122],
     [126, 126, 33, 33, 36, 36, 37, 37],
     [38, 38, 39, 39, 40, 40, 41, 41],
     [42, 42, 43, 43, 45, 45, 46, 46],
     [47, 47, 48, 57, 58, 58, 59, 59],
     [63, 63, 65, 65, 66, 66, 67, 67],
     [68, 68, 69, 69, 70, 70, 71, 90],
     [91, 91, 93, 93, 95, 95, 97, 97],
     [98, 98, 99, 99, 100, 100, 101, 101],
     [102, 102, 103, 122, 126, 126, 33, 33],
     [36, 36, 37, 37, 38, 38, 39, 39],
     [40, 40, 41, 41, 42, 42, 43, 43],
     [45, 45, 46, 46, 47, 47, 48, 57],
     [58, 58, 59, 59, 63, 63, 65, 65],
     [66, 66, 67, 67, 68, 68, 69, 69],
     [70, 70, 71, 90, 91, 91, 93, 93],
     [95, 95, 97, 97, 98, 98, 99, 99],
     [100, 100, 101, 101, 102, 102, 103, 122],
     [126, 126, 33, 33, 36, 36, 37, 37],
     [38, 38, 39, 39, 40, 40, 41, 41],
     [42, 42, 43, 43, 45, 45, 46, 46],
     [47, 47, 48, 57, 58, 58, 59, 59],
     [63, 63, 65, 90, 91, 91, 93, 93],
     [95, 95, 97, 122, 126, 126, 33, 33],
     [36, 36, 37, 37, 38, 38, 39, 39],
     [40, 40, 41, 41, 42, 42, 43, 43],
     [45, 45, 46, 46, 47, 47, 48, 48],
     [49, 49, 50, 50, 51, 57, 58, 58],
     [59, 59, 63, 63, 65, 65, 66, 66],
     [67, 67, 68, 68, 69, 69, 70, 70],
     [71, 90, 91, 91, 93, 93, 95, 95],
     [97, 97, 98, 98, 99, 99, 100, 100],
     [101, 101, 102, 102, 103, 122, 126, 126],
     [33, 33, 36, 36, 37, 37, 38, 38],
     [39, 39, 40, 40, 41, 41, 42, 42],
     [43, 43, 45, 45, 46, 46, 47, 47],
     [48, 57, 58, 58, 59, 59, 63, 63],
     [65, 65, 66, 66, 67, 67, 68, 68],
     [69, 69, 70, 70, 71, 90, 91, 91],
     [93, 93, 95, 95, 97, 97, 98, 98],
     [99, 99, 100, 100, 101, 101, 102, 102],
     [103, 122, 126, 126, 33, 33, 36, 36],
     [37, 37, 38, 38, 39, 39, 40, 40],
     [41, 41, 42, 42, 43, 43, 45, 45],
     [46, 46, 47, 47, 48, 57, 58, 58],
     [59, 59, 63, 63, 65, 65, 66, 66],
     [67, 67, 68, 68, 69, 69, 70, 70],
     [71, 90, 91, 91, 93, 93, 95, 95],
     [97, 97, 98, 98, 99, 99, 100, 100],
     [101, 101, 102, 102, 103, 122, 126, 126],
     [33, 33, 36, 36, 37, 37, 38, 38],
     [39, 39, 40, 40, 41, 41, 42, 42],
     [43, 43, 45, 45, 46, 46, 47, 47],
     [48, 57, 58, 58, 59, 59, 63, 63],
     [65, 65, 66, 66, 67, 67, 68, 68],
     [69, 69, 70, 70, 71, 90, 91, 91],
     [93, 93, 95, 95, 97, 97, 98, 98],
     [99, 99, 100, 100, 101, 101, 102, 102],
     [103, 122, 126, 126, 33, 33, 36, 36],
     [37, 37, 38, 38, 39, 39, 40, 40],
     [41, 41, 42, 42, 43, 43, 45, 45],
     [46, 46, 47, 47, 48, 57, 58, 58],
     [59, 59, 63, 63, 65, 90, 91, 91],
     [93, 93, 95, 95, 97, 122, 126, 126],
     [33, 33, 36, 36, 37, 37, 38, 38],
     [39, 39, 40, 40, 41, 41, 42, 42],
     [43, 43, 45, 45, 46, 46, 47, 47],
     [48, 48, 49, 49, 50, 50, 51, 57],
     [58, 58, 59, 59, 63, 63, 65, 65],
     [66, 66, 67, 67, 68, 68, 69, 69],
     [70, 70, 71, 90, 91, 91, 93, 93]]"

definition sup_cond_keys_77 :: "int list list" where
  "sup_cond_keys_77 =
    [[95, 95, 97, 97, 98, 98, 99, 99],
     [100, 100, 101, 101, 102, 102, 103, 122],
     [126, 126, 33, 33, 36, 36, 37, 37],
     [38, 38, 39, 39, 40, 40, 41, 41],
     [42, 42, 43, 43, 45, 45, 46, 46],
     [47, 47, 48, 57, 58, 58, 59, 59],
     [63, 63, 65, 65, 66, 66, 67, 67],
     [68, 68, 69, 69, 70, 70, 71, 90],
     [91, 91, 93, 93, 95, 95, 97, 97],
     [98, 98, 99, 99, 100, 100, 101, 101],
     [102, 102, 103, 122, 126, 126, 33, 33],
     [36, 36, 37, 37, 38, 38, 39, 39],
     [40, 40, 41, 41, 42, 42, 43, 43],
     [45, 45, 46, 46, 47, 47, 48, 57],
     [58, 58, 59, 59, 63, 63, 65, 65],
     [66, 66, 67, 67, 68, 68, 69, 69],
     [70, 70, 71, 90, 91, 91, 93, 93],
     [95, 95, 97, 97, 98, 98, 99, 99],
     [100, 100, 101, 101, 102, 102, 103, 122],
     [126, 126, 33, 33, 36, 36, 37, 37],
     [38, 38, 39, 39, 40, 40, 41, 41],
     [42, 42, 43, 43, 45, 45, 46, 46],
     [47, 47, 48, 57, 58, 58, 59, 59],
     [63, 63, 65, 65, 66, 66, 67, 67],
     [68, 68, 69, 69, 70, 70, 71, 90],
     [91, 91, 93, 93, 95, 95, 97, 97],
     [98, 98, 99, 99, 100, 100, 101, 101],
     [102, 102, 103, 122, 126, 126, 33, 33],
     [36, 36, 37, 37, 38, 38, 39, 39],
     [40, 40, 41, 41, 42, 42, 43, 43],
     [45, 45, 46, 46, 47, 47, 48, 52],
     [53, 53, 54, 57, 58, 58, 59, 59],
     [63, 63, 65, 65, 66, 66, 67, 67],
     [68, 68, 69, 69, 70, 70, 71, 90],
     [91, 91, 93, 93, 95, 95, 97, 97],
     [98, 98, 99, 99, 100, 100, 101, 101],
     [102, 102, 103, 122, 126, 126, 33, 33],
     [36, 36, 37, 37, 38, 38, 39, 39],
     [40, 40, 41, 41, 42, 42, 43, 43],
     [45, 45, 46, 46, 47, 47, 48, 53],
     [54, 57, 58, 58, 59, 59, 63, 63],
     [65, 65, 66, 66, 67, 67, 68, 68],
     [69, 69, 70, 70, 71, 90, 91, 91],
     [93, 93, 95, 95, 97, 97, 98, 98],
     [99, 99, 100, 100, 101, 101, 102, 102],
     [103, 122, 126, 126, 33, 33, 36, 36],
     [37, 37, 38, 38, 39, 39, 40, 40],
     [41, 41, 42, 42, 43, 43, 45, 45],
     [46, 46, 47, 47, 48, 57, 58, 58],
     [59, 59, 63, 63, 65, 65, 66, 66],
     [67, 67, 68, 68, 69, 69, 70, 70],
     [71, 90, 91, 91, 93, 93, 95, 95],
     [97, 97, 98, 98, 99, 99, 100, 100],
     [101, 101, 102, 102, 103, 122, 126, 126],
     [33, 33, 36, 36, 37, 37, 38, 38],
     [39, 39, 40, 40, 41, 41, 42, 42],
     [43, 43, 45, 45, 46, 46, 47, 47],
     [48, 57, 58, 58, 59, 59, 63, 63],
     [65, 65, 66, 66, 67, 67, 68, 68],
     [69, 69, 70, 70, 71, 90, 91, 91],
     [93, 93, 95, 95, 97, 97, 98, 98],
     [99, 99, 100, 100, 101, 101, 102, 102],
     [103, 122, 126, 126, 33, 33, 36, 36],
     [37, 37, 38, 38, 39, 39, 40, 40],
     [41, 41, 42, 42, 43, 43, 45, 45],
     [46, 46, 47, 47, 48, 57, 58, 58],
     [59, 59, 63, 63, 65, 65, 66, 66],
     [67, 67, 68, 68, 69, 69, 70, 70],
     [71, 90, 91, 91, 93, 93, 95, 95],
     [97, 97, 98, 98, 99, 99, 100, 100],
     [101, 101, 102, 102, 103, 122, 126, 126],
     [9, 9, 13, 13, 32, 32, 33, 33],
     [36, 36, 37, 37, 38, 38, 39, 39],
     [40, 40, 41, 41, 42, 42, 43, 43],
     [45, 45, 46, 46, 47, 47, 48, 57],
     [58, 58, 59, 59, 61, 61, 63, 63],
     [65, 81, 82, 82, 83, 90, 91, 91],
     [93, 93, 95, 95, 96, 96, 97, 113],
     [114, 114, 115, 122, 126, 126, 9, 9],
     [13, 13, 32, 32, 33, 33, 36, 36],
     [37, 37, 38, 38, 39, 39, 40, 40],
     [41, 41, 42, 42, 43, 43, 45, 45],
     [46, 46, 47, 47, 48, 57, 58, 58],
     [59, 59, 61, 61, 63, 63, 65, 90],
     [91, 91, 93, 93, 95, 95, 96, 96],
     [97, 122, 126, 126, 9, 9, 13, 13],
     [32, 32, 33, 33, 34, 34, 36, 36],
     [37, 37, 38, 38, 39, 39, 40, 40],
     [41, 41, 42, 42, 43, 43, 45, 45],
     [46, 46, 47, 47, 48, 48, 49, 49],
     [50, 50, 51, 57, 58, 58, 59, 59],
     [61, 61, 63, 63, 65, 90, 91, 91],
     [93, 93, 95, 95, 96, 96, 97, 122],
     [126, 126, 9, 9, 13, 13, 32, 32],
     [33, 33, 36, 36, 37, 37, 38, 38],
     [39, 39, 40, 40, 41, 41, 42, 42],
     [43, 43, 45, 45, 46, 46, 47, 47],
     [48, 57, 58, 58, 59, 59, 63, 63],
     [65, 90, 91, 91, 93, 93, 95, 95],
     [96, 96, 97, 122, 126, 126, 9, 9],
     [13, 13, 32, 32, 33, 33, 37, 37],
     [39, 39, 42, 42, 43, 43, 45, 45],
     [46, 46, 48, 57, 59, 59, 63, 63],
     [65, 65, 66, 66, 67, 67, 68, 68],
     [69, 69, 70, 70, 71, 90, 95, 95],
     [96, 96, 97, 97, 98, 98, 99, 99],
     [100, 100, 101, 101, 102, 102, 103, 122],
     [126, 126, 9, 9, 13, 13, 32, 32],
     [33, 33, 37, 37, 39, 39, 42, 42],
     [43, 43, 45, 45, 46, 46, 48, 57],
     [59, 59, 63, 63, 65, 90, 95, 95],
     [96, 96, 97, 122, 126, 126, 9, 9],
     [13, 13, 32, 32, 33, 33, 37, 37],
     [39, 39, 42, 42, 43, 43, 45, 45],
     [46, 46, 48, 57, 59, 59, 63, 63],
     [65, 65, 66, 66, 67, 67, 68, 68],
     [69, 69, 70, 70, 71, 90, 95, 95],
     [96, 96, 97, 97, 98, 98, 99, 99],
     [100, 100, 101, 101, 102, 102, 103, 122],
     [126, 126, 9, 9, 13, 13, 32, 32],
     [33, 33, 36, 36, 37, 37, 38, 38],
     [39, 39, 40, 40, 41, 41, 42, 42],
     [43, 43, 45, 45, 46, 46, 47, 47],
     [48, 57, 58, 58, 59, 59, 61, 61],
     [63, 63, 65, 65, 66, 66, 67, 85],
     [86, 86, 87, 90, 91, 91, 93, 93],
     [95, 95, 96, 96, 97, 97, 98, 98],
     [99, 117, 118, 118, 119, 122, 126, 126],
     [9, 9, 13, 13, 32, 32, 33, 33],
     [36, 36, 37, 37, 38, 38, 39, 39],
     [40, 40, 41, 41, 42, 42, 43, 43],
     [45, 45, 46, 46, 47, 47, 48, 57],
     [58, 58, 59, 59, 61, 61, 63, 63],
     [65, 90, 91, 91, 93, 93, 95, 95],
     [96, 96, 97, 122, 126, 126, 9, 9],
     [13, 13, 32, 32, 33, 33, 36, 36],
     [37, 37, 38, 38, 39, 39, 40, 40],
     [41, 41, 42, 42, 43, 43, 45, 45],
     [46, 46, 47, 47, 48, 57, 58, 58],
     [59, 59, 61, 61, 63, 63, 65, 72],
     [73, 73, 74, 90, 91, 91, 93, 93],
     [95, 95, 96, 96, 97, 104, 105, 105],
     [106, 122, 126, 126, 9, 9, 13, 13],
     [32, 32, 33, 33, 36, 36, 37, 37],
     [38, 38, 39, 39, 40, 40, 41, 41],
     [42, 42, 43, 43, 45, 45, 46, 46],
     [47, 47, 48, 57, 58, 58, 59, 59],
     [61, 61, 63, 63, 65, 67, 68, 68],
     [69, 90, 91, 91, 93, 93, 95, 95],
     [96, 96, 97, 99, 100, 100, 101, 122]]"

definition sup_cond_keys_78 :: "int list list" where
  "sup_cond_keys_78 =
    [[126, 126, 9, 9, 13, 13, 32, 32],
     [33, 33, 36, 36, 37, 37, 38, 38],
     [39, 39, 40, 40, 41, 41, 42, 42],
     [43, 43, 45, 45, 46, 46, 47, 47],
     [48, 57, 58, 58, 59, 59, 61, 61],
     [63, 63, 65, 90, 91, 91, 93, 93],
     [95, 95, 96, 96, 97, 122, 126, 126],
     [9, 9, 13, 13, 32, 32, 33, 33],
     [34, 34, 36, 36, 37, 37, 38, 38],
     [39, 39, 40, 40, 41, 41, 42, 42],
     [43, 43, 45, 45, 46, 46, 47, 47],
     [48, 48, 49, 49, 50, 50, 51, 57],
     [58, 58, 59, 59, 61, 61, 63, 63],
     [65, 90, 91, 91, 93, 93, 95, 95],
     [96, 96, 97, 122, 126, 126, 9, 9],
     [13, 13, 32, 32, 33, 33, 36, 36],
     [37, 37, 38, 38, 39, 39, 40, 40],
     [41, 41, 42, 42, 43, 43, 45, 45],
     [46, 46, 47, 47, 48, 57, 58, 58],
     [59, 59, 63, 63, 65, 90, 91, 91],
     [93, 93, 95, 95, 96, 96, 97, 122],
     [126, 126, 9, 9, 13, 13, 32, 32],
     [33, 33, 37, 37, 39, 39, 42, 42],
     [43, 43, 45, 45, 46, 46, 48, 57],
     [59, 59, 63, 63, 65, 65, 66, 66],
     [67, 67, 68, 68, 69, 69, 70, 70],
     [71, 90, 95, 95, 96, 96, 97, 97],
     [98, 98, 99, 99, 100, 100, 101, 101],
     [102, 102, 103, 122, 126, 126, 9, 9],
     [13, 13, 32, 32, 33, 33, 37, 37],
     [39, 39, 42, 42, 43, 43, 45, 45],
     [46, 46, 48, 57, 59, 59, 63, 63],
     [65, 90, 95, 95, 96, 96, 97, 122],
     [126, 126, 9, 9, 13, 13, 32, 32],
     [33, 33, 37, 37, 39, 39, 42, 42],
     [43, 43, 45, 45, 46, 46, 48, 57],
     [59, 59, 63, 63, 65, 65, 66, 66],
     [67, 67, 68, 68, 69, 69, 70, 70],
     [71, 90, 95, 95, 96, 96, 97, 97],
     [98, 98, 99, 99, 100, 100, 101, 101],
     [102, 102, 103, 122, 126, 126, 9, 9],
     [13, 13, 32, 32, 33, 33, 36, 36],
     [37, 37, 38, 38, 39, 39, 40, 40],
     [41, 41, 42, 42, 43, 43, 45, 45],
     [46, 46, 47, 47, 48, 57, 58, 58],
     [59, 59, 61, 61, 63, 63, 65, 81],
     [82, 82, 83, 90, 91, 91, 93, 93],
     [95, 95, 96, 96, 97, 113, 114, 114],
     [115, 122, 126, 126, 9, 9, 13, 13],
     [32, 32, 33, 33, 36, 36, 37, 37],
     [38, 38, 39, 39, 40, 40, 41, 41],
     [42, 42, 43, 43, 45, 45, 46, 46],
     [47, 47, 48, 57, 58, 58, 59, 59],
     [61, 61, 63, 63, 65, 65, 66, 90],
     [91, 91, 93, 93, 95, 95, 96, 96],
     [97, 97, 98, 122, 126, 126, 9, 9],
     [13, 13, 32, 32, 33, 33, 36, 36],
     [37, 37, 38, 38, 39, 39, 40, 40],
     [41, 41, 42, 42, 43, 43, 45, 45],
     [46, 46, 47, 47, 48, 57, 58, 58],
     [59, 59, 61, 61, 63, 63, 65, 77],
     [78, 78, 79, 90, 91, 91, 93, 93],
     [95, 95, 96, 96, 97, 109, 110, 110],
     [111, 122, 126, 126, 9, 9, 13, 13],
     [32, 32, 33, 33, 36, 36, 37, 37],
     [38, 38, 39, 39, 40, 40, 41, 41],
     [42, 42, 43, 43, 45, 45, 46, 46],
     [47, 47, 48, 57, 58, 58, 59, 59],
     [61, 61, 63, 63, 65, 82, 83, 83],
     [84, 90, 91, 91, 93, 93, 95, 95],
     [96, 96, 97, 114, 115, 115, 116, 122],
     [126, 126, 9, 9, 13, 13, 32, 32],
     [33, 33, 36, 36, 37, 37, 38, 38],
     [39, 39, 40, 40, 41, 41, 42, 42],
     [43, 43, 45, 45, 46, 46, 47, 47],
     [48, 57, 58, 58, 59, 59, 61, 61],
     [63, 63, 65, 79, 80, 80, 81, 90],
     [91, 91, 93, 93, 95, 95, 96, 96],
     [97, 111, 112, 112, 113, 122, 126, 126],
     [9, 9, 13, 13, 32, 32, 33, 33],
     [36, 36, 37, 37, 38, 38, 39, 39],
     [40, 40, 41, 41, 42, 42, 43, 43],
     [45, 45, 46, 46, 47, 47, 48, 57],
     [58, 58, 59, 59, 61, 61, 63, 63],
     [65, 78, 79, 79, 80, 90, 91, 91],
     [93, 93, 95, 95, 96, 96, 97, 110],
     [111, 111, 112, 122, 126, 126, 9, 9],
     [13, 13, 32, 32, 33, 33, 36, 36],
     [37, 37, 38, 38, 39, 39, 40, 40],
     [41, 41, 42, 42, 43, 43, 45, 45],
     [46, 46, 47, 47, 48, 57, 58, 58],
     [59, 59, 61, 61, 63, 63, 65, 81],
     [82, 82, 83, 90, 91, 91, 93, 93],
     [95, 95, 96, 96, 97, 113, 114, 114],
     [115, 122, 126, 126, 9, 9, 13, 13],
     [32, 32, 33, 33, 36, 36, 37, 37],
     [38, 38, 39, 39, 40, 40, 41, 41],
     [42, 42, 43, 43, 45, 45, 46, 46],
     [47, 47, 48, 57, 58, 58, 59, 59],
     [61, 61, 63, 63, 65, 83, 84, 84],
     [85, 90, 91, 91, 93, 93, 95, 95],
     [96, 96, 97, 115, 116, 116, 117, 122],
     [126, 126, 9, 9, 13, 13, 32, 32],
     [33, 33, 36, 36, 37, 37, 38, 38],
     [39, 39, 40, 40, 41, 41, 42, 42],
     [43, 43, 45, 45, 46, 46, 47, 47],
     [48, 57, 58, 58, 59, 59, 61, 61],
     [63, 63, 65, 90, 91, 91, 93, 93],
     [95, 95, 96, 96, 97, 122, 126, 126],
     [9, 9, 13, 13, 32, 32, 33, 33],
     [34, 34, 36, 36, 37, 37, 38, 38],
     [39, 39, 40, 40, 41, 41, 42, 42],
     [43, 43, 45, 45, 46, 46, 47, 47],
     [48, 48, 49, 49, 50, 50, 51, 57],
     [58, 58, 59, 59, 61, 61, 63, 63],
     [65, 82, 83, 83, 84, 84, 85, 85],
     [86, 86, 87, 87, 88, 90, 91, 91],
     [93, 93, 95, 95, 96, 96, 97, 114],
     [115, 115, 116, 116, 117, 117, 118, 118],
     [119, 119, 120, 122, 126, 126, 9, 9],
     [13, 13, 32, 32, 33, 33, 36, 36],
     [37, 37, 38, 38, 39, 39, 40, 40],
     [41, 41, 42, 42, 43, 43, 45, 45],
     [46, 46, 47, 47, 48, 57, 58, 58],
     [59, 59, 63, 63, 65, 90, 91, 91],
     [93, 93, 95, 95, 96, 96, 97, 122],
     [126, 126, 9, 9, 13, 13, 32, 32],
     [33, 33, 37, 37, 39, 39, 42, 42],
     [43, 43, 45, 45, 46, 46, 48, 57],
     [59, 59, 63, 63, 65, 65, 66, 66],
     [67, 67, 68, 68, 69, 69, 70, 70],
     [71, 90, 95, 95, 96, 96, 97, 97],
     [98, 98, 99, 99, 100, 100, 101, 101],
     [102, 102, 103, 122, 126, 126, 9, 9],
     [13, 13, 32, 32, 33, 33, 37, 37],
     [39, 39, 42, 42, 43, 43, 45, 45],
     [46, 46, 48, 57, 59, 59, 63, 63],
     [65, 90, 95, 95, 96, 96, 97, 122],
     [126, 126, 9, 9, 13, 13, 32, 32],
     [33, 33, 37, 37, 39, 39, 42, 42],
     [43, 43, 45, 45, 46, 46, 48, 57],
     [59, 59, 63, 63, 65, 65, 66, 66],
     [67, 67, 68, 68, 69, 69, 70, 70],
     [71, 90, 95, 95, 96, 96, 97, 97],
     [98, 98, 99, 99, 100, 100, 101, 101],
     [102, 102, 103, 122, 126, 126, 9, 9],
     [13, 13, 32, 32, 33, 33, 36, 36],
     [37, 37, 38, 38, 39, 39, 40, 40],
     [41, 41, 42, 42, 43, 43, 45, 45],
     [46, 46, 47, 47, 48, 57, 58, 58]]"

definition sup_cond_keys_79 :: "int list list" where
  "sup_cond_keys_79 =
    [[59, 59, 63, 63, 65, 66, 67, 67],
     [68, 90, 91, 91, 93, 93, 95, 95],
     [96, 96, 97, 98, 99, 99, 100, 122],
     [126, 126, 9, 9, 13, 13, 32, 32],
     [33, 33, 36, 36, 37, 37, 38, 38],
     [39, 39, 40, 40, 41, 41, 42, 42],
     [43, 43, 45, 45, 46, 46, 47, 47],
     [48, 57, 58, 58, 59, 59, 63, 63],
     [65, 83, 84, 84, 85, 90, 91, 91],
     [93, 93, 95, 95, 96, 96, 97, 115],
     [116, 116, 117, 122, 126, 126, 9, 9],
     [13, 13, 32, 32, 33, 33, 36, 36],
     [37, 37, 38, 38, 39, 39, 40, 40],
     [41, 41, 42, 42, 43, 43, 45, 45],
     [46, 46, 47, 47, 48, 57, 58, 58],
     [59, 59, 63, 63, 65, 79, 80, 80],
     [81, 90, 91, 91, 93, 93, 95, 95],
     [96, 96, 97, 111, 112, 112, 113, 122],
     [126, 126, 9, 9, 13, 13, 32, 32],
     [33, 33, 36, 36, 37, 37, 38, 38],
     [39, 39, 40, 40, 41, 41, 42, 42],
     [43, 43, 45, 45, 46, 46, 47, 47],
     [48, 57, 58, 58, 59, 59, 63, 63],
     [65, 90, 91, 91, 93, 93, 95, 95],
     [96, 96, 97, 122, 126, 126, 9, 9],
     [13, 13, 32, 32, 33, 33, 36, 36],
     [37, 37, 38, 38, 39, 39, 40, 40],
     [41, 41, 42, 42, 43, 43, 45, 45],
     [46, 46, 47, 47, 48, 57, 58, 58],
     [59, 59, 63, 63, 65, 66, 67, 67],
     [68, 75, 76, 76, 77, 90, 91, 91],
     [93, 93, 95, 95, 96, 96, 97, 98],
     [99, 99, 100, 107, 108, 108, 109, 122],
     [126, 126, 9, 9, 13, 13, 32, 32],
     [33, 33, 36, 36, 37, 37, 38, 38],
     [39, 39, 40, 40, 41, 41, 42, 42],
     [43, 43, 45, 45, 46, 46, 47, 47],
     [48, 57, 58, 58, 59, 59, 63, 63],
     [65, 79, 80, 80, 81, 90, 91, 91],
     [93, 93, 95, 95, 96, 96, 97, 111],
     [112, 112, 113, 122, 126, 126, 9, 9],
     [13, 13, 32, 32, 33, 33, 36, 36],
     [37, 37, 38, 38, 39, 39, 40, 40],
     [41, 41, 42, 42, 43, 43, 45, 45],
     [46, 46, 47, 47, 48, 57, 58, 58],
     [59, 59, 63, 63, 65, 90, 91, 91],
     [93, 93, 95, 95, 96, 96, 97, 122],
     [126, 126, 9, 9, 13, 13, 32, 32],
     [33, 33, 36, 36, 37, 37, 38, 38],
     [39, 39, 40, 40, 41, 41, 42, 42],
     [43, 43, 45, 45, 46, 46, 47, 47],
     [48, 57, 58, 58, 59, 59, 63, 63],
     [65, 82, 83, 83, 84, 90, 91, 91],
     [93, 93, 95, 95, 96, 96, 97, 114],
     [115, 115, 116, 122, 126, 126, 9, 9],
     [13, 13, 32, 32, 33, 33, 36, 36],
     [37, 37, 38, 38, 39, 39, 40, 40],
     [41, 41, 42, 42, 43, 43, 45, 45],
     [46, 46, 47, 47, 48, 57, 58, 58],
     [59, 59, 63, 63, 65, 90, 91, 91],
     [93, 93, 95, 95, 96, 96, 97, 122],
     [126, 126, 9, 9, 13, 13, 32, 32],
     [33, 33, 36, 36, 37, 37, 38, 38],
     [39, 39, 40, 40, 41, 41, 42, 42],
     [43, 43, 45, 45, 46, 46, 47, 47],
     [48, 57, 58, 58, 59, 59, 63, 63],
     [65, 67, 68, 68, 69, 90, 91, 91],
     [93, 93, 95, 95, 96, 96, 97, 99],
     [100, 100, 101, 122, 126, 126, 9, 9],
     [13, 13, 32, 32, 33, 33, 36, 36],
     [37, 37, 38, 38, 39, 39, 40, 40],
     [41, 41, 42, 42, 43, 43, 45, 45],
     [46, 46, 47, 47, 48, 57, 58, 58],
     [59, 59, 63, 63, 65, 79, 80, 80],
     [81, 90, 91, 91, 93, 93, 95, 95],
     [96, 96, 97, 111, 112, 112, 113, 122],
     [126, 126, 9, 9, 13, 13, 32, 32],
     [33, 33, 36, 36, 37, 37, 38, 38],
     [39, 39, 40, 40, 41, 41, 42, 42],
     [43, 43, 45, 45, 46, 46, 47, 47],
     [48, 57, 58, 58, 59, 59, 63, 63],
     [65, 90, 91, 91, 93, 93, 95, 95],
     [96, 96, 97, 122, 126, 126, 9, 9],
     [13, 13, 32, 32, 33, 33, 36, 36],
     [37, 37, 38, 38, 39, 39, 40, 40],
     [41, 41, 42, 42, 43, 43, 45, 45],
     [46, 46, 47, 47, 48, 57, 58, 58],
     [59, 59, 63, 63, 65, 82, 83, 83],
     [84, 90, 91, 91, 93, 93, 95, 95],
     [96, 96, 97, 114, 115, 115, 116, 122],
     [126, 126, 9, 9, 13, 13, 32, 32],
     [33, 33, 36, 36, 37, 37, 38, 38],
     [39, 39, 40, 40, 41, 41, 42, 42],
     [43, 43, 45, 45, 46, 46, 47, 47],
     [48, 57, 58, 58, 59, 59, 63, 63],
     [65, 82, 83, 83, 84, 90, 91, 91],
     [93, 93, 95, 95, 96, 96, 97, 114],
     [115, 115, 116, 122, 126, 126, 9, 9],
     [13, 13, 32, 32, 33, 33, 36, 36],
     [37, 37, 38, 38, 39, 39, 40, 40],
     [41, 41, 42, 42, 43, 43, 45, 45],
     [46, 46, 47, 47, 48, 57, 58, 58],
     [59, 59, 63, 63, 65, 90, 91, 91],
     [93, 93, 95, 95, 96, 96, 97, 122],
     [126, 126, 9, 9, 13, 13, 32, 32],
     [48, 57, 59, 59, 63, 63, 9, 9],
     [13, 13, 32, 32, 48, 57, 59, 59],
     [63, 63, 9, 9, 13, 13, 32, 32],
     [48, 57, 59, 59, 63, 63, 9, 9],
     [13, 13, 32, 32, 48, 57, 59, 59],
     [63, 63, 9, 9, 13, 13, 32, 32],
     [48, 52, 53, 53, 54, 57, 59, 59],
     [63, 63, 9, 9, 13, 13, 32, 32],
     [48, 52, 53, 53, 54, 57, 59, 59],
     [63, 63, 9, 9, 13, 13, 32, 32],
     [48, 50, 51, 51, 52, 57, 59, 59],
     [63, 63, 9, 9, 13, 13, 32, 32],
     [48, 53, 59, 59, 63, 63, 48, 48],
     [49, 49, 50, 50, 51, 57, 65, 90],
     [97, 122, 45, 45, 46, 46, 48, 57],
     [65, 90, 95, 95, 97, 122, 48, 48],
     [49, 49, 50, 50, 51, 57, 65, 90],
     [97, 122, 45, 45, 46, 46, 48, 57],
     [65, 90, 95, 95, 97, 122, 48, 48],
     [49, 49, 50, 50, 51, 57, 65, 90],
     [97, 122, 9, 9, 13, 13, 32, 32],
     [45, 45, 46, 46, 48, 57, 58, 58],
     [59, 59, 63, 63, 65, 90, 95, 95],
     [97, 122, 9, 9, 13, 13, 32, 32],
     [45, 45, 46, 46, 48, 57, 58, 58],
     [59, 59, 63, 63, 65, 90, 95, 95],
     [97, 122, 9, 9, 13, 13, 32, 32],
     [45, 45, 46, 46, 48, 57, 58, 58],
     [59, 59, 63, 63, 65, 90, 95, 95],
     [97, 122, 9, 9, 13, 13, 32, 32],
     [45, 45, 46, 46, 48, 52, 53, 53],
     [54, 57, 58, 58, 59, 59, 63, 63],
     [65, 90, 95, 95, 97, 122, 9, 9],
     [13, 13, 32, 32, 45, 45, 46, 46],
     [48, 53, 54, 57, 58, 58, 59, 59],
     [63, 63, 65, 90, 95, 95, 97, 122],
     [45, 45, 46, 46, 48, 57, 65, 90],
     [95, 95, 97, 122, 45, 45, 46, 46],
     [48, 57, 65, 90, 95, 95, 97, 122],
     [45, 45, 46, 46, 48, 52, 53, 53],
     [54, 57, 65, 90, 95, 95, 97, 122],
     [45, 45, 46, 46, 48, 53, 54, 57],
     [65, 90, 95, 95, 97, 122, 45, 45],
     [46, 46, 48, 57, 65, 90, 95, 95],
     [97, 122, 45, 45, 46, 46, 48, 57]]"

definition sup_cond_keys_80 :: "int list list" where
  "sup_cond_keys_80 =
    [[65, 90, 95, 95, 97, 122, 45, 45],
     [46, 46, 48, 52, 53, 53, 54, 57],
     [65, 90, 95, 95, 97, 122, 45, 45],
     [46, 46, 48, 53, 54, 57, 65, 90],
     [95, 95, 97, 122, 45, 45, 46, 46],
     [48, 57, 65, 90, 95, 95, 97, 122],
     [45, 45, 46, 46, 48, 57, 65, 90],
     [95, 95, 97, 122, 45, 45, 46, 46],
     [48, 52, 53, 53, 54, 57, 65, 90],
     [95, 95, 97, 122, 45, 45, 46, 46],
     [48, 53, 54, 57, 65, 90, 95, 95],
     [97, 122, 48, 57, 58, 58, 65, 65],
     [66, 66, 67, 67, 68, 68, 69, 69],
     [70, 70, 97, 97, 98, 98, 99, 99],
     [100, 100, 101, 101, 102, 102, 48, 57],
     [58, 58, 65, 65, 66, 66, 67, 67],
     [68, 68, 69, 69, 70, 70, 97, 97],
     [98, 98, 99, 99, 100, 100, 101, 101],
     [102, 102, 48, 57, 58, 58, 65, 65],
     [66, 66, 67, 67, 68, 68, 69, 69],
     [70, 70, 97, 97, 98, 98, 99, 99],
     [100, 100, 101, 101, 102, 102, 48, 57],
     [58, 58, 65, 65, 66, 66, 67, 67],
     [68, 68, 69, 69, 70, 70, 97, 97],
     [98, 98, 99, 99, 100, 100, 101, 101],
     [102, 102, 58, 58, 48, 57, 58, 58],
     [65, 65, 66, 66, 67, 67, 68, 68],
     [69, 69, 70, 70, 97, 97, 98, 98],
     [99, 99, 100, 100, 101, 101, 102, 102],
     [48, 57, 58, 58, 65, 65, 66, 66],
     [67, 67, 68, 68, 69, 69, 70, 70],
     [97, 97, 98, 98, 99, 99, 100, 100],
     [101, 101, 102, 102, 48, 57, 58, 58],
     [65, 65, 66, 66, 67, 67, 68, 68],
     [69, 69, 70, 70, 97, 97, 98, 98],
     [99, 99, 100, 100, 101, 101, 102, 102],
     [48, 57, 58, 58, 65, 65, 66, 66],
     [67, 67, 68, 68, 69, 69, 70, 70],
     [97, 97, 98, 98, 99, 99, 100, 100],
     [101, 101, 102, 102, 58, 58, 48, 57],
     [58, 58, 65, 65, 66, 66, 67, 67],
     [68, 68, 69, 69, 70, 70, 97, 97],
     [98, 98, 99, 99, 100, 100, 101, 101],
     [102, 102, 48, 57, 58, 58, 65, 65],
     [66, 66, 67, 67, 68, 68, 69, 69],
     [70, 70, 97, 97, 98, 98, 99, 99],
     [100, 100, 101, 101, 102, 102, 48, 57],
     [58, 58, 65, 65, 66, 66, 67, 67],
     [68, 68, 69, 69, 70, 70, 97, 97],
     [98, 98, 99, 99, 100, 100, 101, 101],
     [102, 102, 48, 57, 58, 58, 65, 65],
     [66, 66, 67, 67, 68, 68, 69, 69],
     [70, 70, 97, 97, 98, 98, 99, 99],
     [100, 100, 101, 101, 102, 102, 58, 58],
     [48, 57, 58, 58, 65, 65, 66, 66],
     [67, 67, 68, 68, 69, 69, 70, 70],
     [97, 97, 98, 98, 99, 99, 100, 100],
     [101, 101, 102, 102, 48, 57, 58, 58],
     [65, 65, 66, 66, 67, 67, 68, 68],
     [69, 69, 70, 70, 97, 97, 98, 98],
     [99, 99, 100, 100, 101, 101, 102, 102],
     [48, 57, 58, 58, 65, 65, 66, 66],
     [67, 67, 68, 68, 69, 69, 70, 70],
     [97, 97, 98, 98, 99, 99, 100, 100],
     [101, 101, 102, 102, 48, 57, 58, 58],
     [65, 65, 66, 66, 67, 67, 68, 68],
     [69, 69, 70, 70, 97, 97, 98, 98],
     [99, 99, 100, 100, 101, 101, 102, 102],
     [58, 58, 48, 57, 58, 58, 65, 65],
     [66, 66, 67, 67, 68, 68, 69, 69],
     [70, 70, 97, 97, 98, 98, 99, 99],
     [100, 100, 101, 101, 102, 102, 48, 57],
     [58, 58, 65, 65, 66, 66, 67, 67],
     [68, 68, 69, 69, 70, 70, 97, 97],
     [98, 98, 99, 99, 100, 100, 101, 101],
     [102, 102, 48, 57, 58, 58, 65, 65],
     [66, 66, 67, 67, 68, 68, 69, 69],
     [70, 70, 97, 97, 98, 98, 99, 99],
     [100, 100, 101, 101, 102, 102, 48, 57],
     [58, 58, 65, 65, 66, 66, 67, 67],
     [68, 68, 69, 69, 70, 70, 97, 97],
     [98, 98, 99, 99, 100, 100, 101, 101],
     [102, 102, 58, 58, 48, 57, 58, 58],
     [65, 65, 66, 66, 67, 67, 68, 68],
     [69, 69, 70, 70, 97, 97, 98, 98],
     [99, 99, 100, 100, 101, 101, 102, 102],
     [48, 57, 58, 58, 65, 65, 66, 66],
     [67, 67, 68, 68, 69, 69, 70, 70],
     [97, 97, 98, 98, 99, 99, 100, 100],
     [101, 101, 102, 102, 48, 57, 58, 58],
     [65, 65, 66, 66, 67, 67, 68, 68],
     [69, 69, 70, 70, 97, 97, 98, 98],
     [99, 99, 100, 100, 101, 101, 102, 102],
     [48, 57, 58, 58, 65, 65, 66, 66],
     [67, 67, 68, 68, 69, 69, 70, 70],
     [97, 97, 98, 98, 99, 99, 100, 100],
     [101, 101, 102, 102, 58, 58, 48, 48],
     [49, 49, 50, 50, 51, 57, 58, 58],
     [65, 65, 66, 66, 67, 67, 68, 68],
     [69, 69, 70, 70, 97, 97, 98, 98],
     [99, 99, 100, 100, 101, 101, 102, 102],
     [46, 46, 48, 57, 58, 58, 65, 65],
     [66, 66, 67, 67, 68, 68, 69, 69],
     [70, 70, 97, 97, 98, 98, 99, 99],
     [100, 100, 101, 101, 102, 102, 48, 48],
     [49, 49, 50, 50, 51, 57, 46, 46],
     [48, 48, 49, 49, 50, 50, 51, 57],
     [46, 46, 48, 48, 49, 49, 50, 50],
     [51, 57, 93, 93, 9, 9, 13, 13],
     [32, 32, 58, 58, 59, 59, 63, 63],
     [48, 57, 93, 93, 48, 57, 93, 93],
     [48, 52, 53, 53, 54, 57, 93, 93],
     [48, 53, 93, 93, 46, 46, 48, 57],
     [46, 46, 48, 57, 46, 46, 48, 52],
     [53, 53, 54, 57, 46, 46, 48, 53],
     [46, 46, 48, 57, 46, 46, 48, 57],
     [46, 46, 48, 52, 53, 53, 54, 57],
     [46, 46, 48, 53, 48, 57, 58, 58],
     [65, 65, 66, 66, 67, 67, 68, 68],
     [69, 69, 70, 70, 97, 97, 98, 98],
     [99, 99, 100, 100, 101, 101, 102, 102],
     [48, 57, 58, 58, 65, 65, 66, 66],
     [67, 67, 68, 68, 69, 69, 70, 70],
     [97, 97, 98, 98, 99, 99, 100, 100],
     [101, 101, 102, 102, 58, 58, 48, 57],
     [58, 58, 65, 65, 66, 66, 67, 67],
     [68, 68, 69, 69, 70, 70, 97, 97],
     [98, 98, 99, 99, 100, 100, 101, 101],
     [102, 102, 48, 57, 65, 65, 66, 66],
     [67, 67, 68, 68, 69, 69, 70, 70],
     [93, 93, 97, 97, 98, 98, 99, 99],
     [100, 100, 101, 101, 102, 102, 48, 57],
     [65, 65, 66, 66, 67, 67, 68, 68],
     [69, 69, 70, 70, 93, 93, 97, 97],
     [98, 98, 99, 99, 100, 100, 101, 101],
     [102, 102, 48, 57, 65, 65, 66, 66],
     [67, 67, 68, 68, 69, 69, 70, 70],
     [93, 93, 97, 97, 98, 98, 99, 99],
     [100, 100, 101, 101, 102, 102, 46, 46],
     [48, 57, 58, 58, 65, 65, 66, 66],
     [67, 67, 68, 68, 69, 69, 70, 70],
     [97, 97, 98, 98, 99, 99, 100, 100],
     [101, 101, 102, 102, 46, 46, 48, 57],
     [58, 58, 65, 65, 66, 66, 67, 67],
     [68, 68, 69, 69, 70, 70, 97, 97],
     [98, 98, 99, 99, 100, 100, 101, 101],
     [102, 102, 46, 46, 48, 57, 58, 58],
     [65, 65, 66, 66, 67, 67, 68, 68],
     [69, 69, 70, 70, 97, 97, 98, 98],
     [99, 99, 100, 100, 101, 101, 102, 102]]"

definition sup_cond_keys_81 :: "int list list" where
  "sup_cond_keys_81 =
    [[46, 46, 48, 52, 53, 53, 54, 57],
     [58, 58, 65, 65, 66, 66, 67, 67],
     [68, 68, 69, 69, 70, 70, 97, 97],
     [98, 98, 99, 99, 100, 100, 101, 101],
     [102, 102, 46, 46, 48, 53, 54, 57],
     [58, 58, 65, 65, 66, 66, 67, 67],
     [68, 68, 69, 69, 70, 70, 97, 97],
     [98, 98, 99, 99, 100, 100, 101, 101],
     [102, 102, 46, 46, 48, 57, 58, 58],
     [65, 65, 66, 66, 67, 67, 68, 68],
     [69, 69, 70, 70, 97, 97, 98, 98],
     [99, 99, 100, 100, 101, 101, 102, 102],
     [46, 46, 48, 57, 58, 58, 65, 65],
     [66, 66, 67, 67, 68, 68, 69, 69],
     [70, 70, 97, 97, 98, 98, 99, 99],
     [100, 100, 101, 101, 102, 102, 48, 57],
     [65, 65, 66, 66, 67, 67, 68, 68],
     [69, 69, 70, 70, 93, 93, 97, 97],
     [98, 98, 99, 99, 100, 100, 101, 101],
     [102, 102, 48, 57, 58, 58, 65, 65],
     [66, 66, 67, 67, 68, 68, 69, 69],
     [70, 70, 97, 97, 98, 98, 99, 99],
     [100, 100, 101, 101, 102, 102, 48, 48],
     [49, 49, 50, 50, 51, 57, 65, 65],
     [66, 66, 67, 67, 68, 68, 69, 69],
     [70, 70, 93, 93, 97, 97, 98, 98],
     [99, 99, 100, 100, 101, 101, 102, 102],
     [46, 46, 48, 57, 58, 58, 65, 65],
     [66, 66, 67, 67, 68, 68, 69, 69],
     [70, 70, 93, 93, 97, 97, 98, 98],
     [99, 99, 100, 100, 101, 101, 102, 102],
     [48, 57, 58, 58, 65, 65, 66, 66],
     [67, 67, 68, 68, 69, 69, 70, 70],
     [93, 93, 97, 97, 98, 98, 99, 99],
     [100, 100, 101, 101, 102, 102, 48, 57],
     [58, 58, 65, 65, 66, 66, 67, 67],
     [68, 68, 69, 69, 70, 70, 93, 93],
     [97, 97, 98, 98, 99, 99, 100, 100],
     [101, 101, 102, 102, 58, 58, 93, 93],
     [48, 57, 65, 65, 66, 66, 67, 67],
     [68, 68, 69, 69, 70, 70, 97, 97],
     [98, 98, 99, 99, 100, 100, 101, 101],
     [102, 102, 46, 46, 48, 57, 58, 58],
     [65, 65, 66, 66, 67, 67, 68, 68],
     [69, 69, 70, 70, 93, 93, 97, 97],
     [98, 98, 99, 99, 100, 100, 101, 101],
     [102, 102, 46, 46, 48, 57, 58, 58],
     [65, 65, 66, 66, 67, 67, 68, 68],
     [69, 69, 70, 70, 93, 93, 97, 97],
     [98, 98, 99, 99, 100, 100, 101, 101],
     [102, 102, 46, 46, 48, 57, 58, 58],
     [65, 65, 66, 66, 67, 67, 68, 68],
     [69, 69, 70, 70, 93, 93, 97, 97],
     [98, 98, 99, 99, 100, 100, 101, 101],
     [102, 102, 46, 46, 48, 52, 53, 53],
     [54, 57, 58, 58, 65, 65, 66, 66],
     [67, 67, 68, 68, 69, 69, 70, 70],
     [93, 93, 97, 97, 98, 98, 99, 99],
     [100, 100, 101, 101, 102, 102, 46, 46],
     [48, 53, 54, 57, 58, 58, 65, 65],
     [66, 66, 67, 67, 68, 68, 69, 69],
     [70, 70, 93, 93, 97, 97, 98, 98],
     [99, 99, 100, 100, 101, 101, 102, 102],
     [46, 46, 48, 57, 58, 58, 65, 65],
     [66, 66, 67, 67, 68, 68, 69, 69],
     [70, 70, 93, 93, 97, 97, 98, 98],
     [99, 99, 100, 100, 101, 101, 102, 102],
     [46, 46, 48, 57, 58, 58, 65, 65],
     [66, 66, 67, 67, 68, 68, 69, 69],
     [70, 70, 93, 93, 97, 97, 98, 98],
     [99, 99, 100, 100, 101, 101, 102, 102],
     [48, 57, 58, 58, 65, 65, 66, 66],
     [67, 67, 68, 68, 69, 69, 70, 70],
     [93, 93, 97, 97, 98, 98, 99, 99],
     [100, 100, 101, 101, 102, 102, 48, 48],
     [49, 49, 50, 50, 51, 57, 65, 65],
     [66, 66, 67, 67, 68, 68, 69, 69],
     [70, 70, 93, 93, 97, 97, 98, 98],
     [99, 99, 100, 100, 101, 101, 102, 102],
     [46, 46, 48, 57, 58, 58, 65, 65],
     [66, 66, 67, 67, 68, 68, 69, 69],
     [70, 70, 93, 93, 97, 97, 98, 98],
     [99, 99, 100, 100, 101, 101, 102, 102],
     [48, 57, 58, 58, 65, 65, 66, 66],
     [67, 67, 68, 68, 69, 69, 70, 70],
     [93, 93, 97, 97, 98, 98, 99, 99],
     [100, 100, 101, 101, 102, 102, 48, 57],
     [58, 58, 65, 65, 66, 66, 67, 67],
     [68, 68, 69, 69, 70, 70, 93, 93],
     [97, 97, 98, 98, 99, 99, 100, 100],
     [101, 101, 102, 102, 58, 58, 93, 93],
     [48, 48, 49, 49, 50, 50, 51, 57],
     [65, 65, 66, 66, 67, 67, 68, 68],
     [69, 69, 70, 70, 97, 97, 98, 98],
     [99, 99, 100, 100, 101, 101, 102, 102],
     [46, 46, 48, 57, 58, 58, 65, 65],
     [66, 66, 67, 67, 68, 68, 69, 69],
     [70, 70, 93, 93, 97, 97, 98, 98],
     [99, 99, 100, 100, 101, 101, 102, 102],
     [46, 46, 48, 57, 58, 58, 65, 65],
     [66, 66, 67, 67, 68, 68, 69, 69],
     [70, 70, 93, 93, 97, 97, 98, 98],
     [99, 99, 100, 100, 101, 101, 102, 102],
     [46, 46, 48, 57, 58, 58, 65, 65],
     [66, 66, 67, 67, 68, 68, 69, 69],
     [70, 70, 93, 93, 97, 97, 98, 98],
     [99, 99, 100, 100, 101, 101, 102, 102],
     [46, 46, 48, 52, 53, 53, 54, 57],
     [58, 58, 65, 65, 66, 66, 67, 67],
     [68, 68, 69, 69, 70, 70, 93, 93],
     [97, 97, 98, 98, 99, 99, 100, 100],
     [101, 101, 102, 102, 46, 46, 48, 53],
     [54, 57, 58, 58, 65, 65, 66, 66],
     [67, 67, 68, 68, 69, 69, 70, 70],
     [93, 93, 97, 97, 98, 98, 99, 99],
     [100, 100, 101, 101, 102, 102, 46, 46],
     [48, 57, 58, 58, 65, 65, 66, 66],
     [67, 67, 68, 68, 69, 69, 70, 70],
     [93, 93, 97, 97, 98, 98, 99, 99],
     [100, 100, 101, 101, 102, 102, 46, 46],
     [48, 57, 58, 58, 65, 65, 66, 66],
     [67, 67, 68, 68, 69, 69, 70, 70],
     [93, 93, 97, 97, 98, 98, 99, 99],
     [100, 100, 101, 101, 102, 102, 48, 57],
     [58, 58, 65, 65, 66, 66, 67, 67],
     [68, 68, 69, 69, 70, 70, 93, 93],
     [97, 97, 98, 98, 99, 99, 100, 100],
     [101, 101, 102, 102, 48, 48, 49, 49],
     [50, 50, 51, 57, 65, 65, 66, 66],
     [67, 67, 68, 68, 69, 69, 70, 70],
     [93, 93, 97, 97, 98, 98, 99, 99],
     [100, 100, 101, 101, 102, 102, 46, 46],
     [48, 57, 58, 58, 65, 65, 66, 66],
     [67, 67, 68, 68, 69, 69, 70, 70],
     [93, 93, 97, 97, 98, 98, 99, 99],
     [100, 100, 101, 101, 102, 102, 48, 57],
     [58, 58, 65, 65, 66, 66, 67, 67],
     [68, 68, 69, 69, 70, 70, 93, 93],
     [97, 97, 98, 98, 99, 99, 100, 100],
     [101, 101, 102, 102, 48, 57, 58, 58],
     [65, 65, 66, 66, 67, 67, 68, 68],
     [69, 69, 70, 70, 93, 93, 97, 97],
     [98, 98, 99, 99, 100, 100, 101, 101],
     [102, 102, 58, 58, 93, 93, 48, 48],
     [49, 49, 50, 50, 51, 57, 65, 65],
     [66, 66, 67, 67, 68, 68, 69, 69],
     [70, 70, 97, 97, 98, 98, 99, 99],
     [100, 100, 101, 101, 102, 102, 46, 46],
     [48, 57, 58, 58, 65, 65, 66, 66],
     [67, 67, 68, 68, 69, 69, 70, 70]]"

definition sup_cond_keys_82 :: "int list list" where
  "sup_cond_keys_82 =
    [[93, 93, 97, 97, 98, 98, 99, 99],
     [100, 100, 101, 101, 102, 102, 46, 46],
     [48, 57, 58, 58, 65, 65, 66, 66],
     [67, 67, 68, 68, 69, 69, 70, 70],
     [93, 93, 97, 97, 98, 98, 99, 99],
     [100, 100, 101, 101, 102, 102, 46, 46],
     [48, 57, 58, 58, 65, 65, 66, 66],
     [67, 67, 68, 68, 69, 69, 70, 70],
     [93, 93, 97, 97, 98, 98, 99, 99],
     [100, 100, 101, 101, 102, 102, 46, 46],
     [48, 52, 53, 53, 54, 57, 58, 58],
     [65, 65, 66, 66, 67, 67, 68, 68],
     [69, 69, 70, 70, 93, 93, 97, 97],
     [98, 98, 99, 99, 100, 100, 101, 101],
     [102, 102, 46, 46, 48, 53, 54, 57],
     [58, 58, 65, 65, 66, 66, 67, 67],
     [68, 68, 69, 69, 70, 70, 93, 93],
     [97, 97, 98, 98, 99, 99, 100, 100],
     [101, 101, 102, 102, 46, 46, 48, 57],
     [58, 58, 65, 65, 66, 66, 67, 67],
     [68, 68, 69, 69, 70, 70, 93, 93],
     [97, 97, 98, 98, 99, 99, 100, 100],
     [101, 101, 102, 102, 46, 46, 48, 57],
     [58, 58, 65, 65, 66, 66, 67, 67],
     [68, 68, 69, 69, 70, 70, 93, 93],
     [97, 97, 98, 98, 99, 99, 100, 100],
     [101, 101, 102, 102, 48, 57, 58, 58],
     [65, 65, 66, 66, 67, 67, 68, 68],
     [69, 69, 70, 70, 93, 93, 97, 97],
     [98, 98, 99, 99, 100, 100, 101, 101],
     [102, 102, 48, 48, 49, 49, 50, 50],
     [51, 57, 65, 65, 66, 66, 67, 67],
     [68, 68, 69, 69, 70, 70, 93, 93],
     [97, 97, 98, 98, 99, 99, 100, 100],
     [101, 101, 102, 102, 46, 46, 48, 57],
     [58, 58, 65, 65, 66, 66, 67, 67],
     [68, 68, 69, 69, 70, 70, 93, 93],
     [97, 97, 98, 98, 99, 99, 100, 100],
     [101, 101, 102, 102, 48, 57, 58, 58],
     [65, 65, 66, 66, 67, 67, 68, 68],
     [69, 69, 70, 70, 93, 93, 97, 97],
     [98, 98, 99, 99, 100, 100, 101, 101],
     [102, 102, 48, 57, 58, 58, 65, 65],
     [66, 66, 67, 67, 68, 68, 69, 69],
     [70, 70, 93, 93, 97, 97, 98, 98],
     [99, 99, 100, 100, 101, 101, 102, 102],
     [58, 58, 93, 93, 48, 48, 49, 49],
     [50, 50, 51, 57, 65, 65, 66, 66],
     [67, 67, 68, 68, 69, 69, 70, 70],
     [97, 97, 98, 98, 99, 99, 100, 100],
     [101, 101, 102, 102, 46, 46, 48, 57],
     [58, 58, 65, 65, 66, 66, 67, 67],
     [68, 68, 69, 69, 70, 70, 93, 93],
     [97, 97, 98, 98, 99, 99, 100, 100],
     [101, 101, 102, 102, 46, 46, 48, 57],
     [58, 58, 65, 65, 66, 66, 67, 67],
     [68, 68, 69, 69, 70, 70, 93, 93],
     [97, 97, 98, 98, 99, 99, 100, 100],
     [101, 101, 102, 102, 46, 46, 48, 57],
     [58, 58, 65, 65, 66, 66, 67, 67],
     [68, 68, 69, 69, 70, 70, 93, 93],
     [97, 97, 98, 98, 99, 99, 100, 100],
     [101, 101, 102, 102, 46, 46, 48, 52],
     [53, 53, 54, 57, 58, 58, 65, 65],
     [66, 66, 67, 67, 68, 68, 69, 69],
     [70, 70, 93, 93, 97, 97, 98, 98],
     [99, 99, 100, 100, 101, 101, 102, 102],
     [46, 46, 48, 53, 54, 57, 58, 58],
     [65, 65, 66, 66, 67, 67, 68, 68],
     [69, 69, 70, 70, 93, 93, 97, 97],
     [98, 98, 99, 99, 100, 100, 101, 101],
     [102, 102, 46, 46, 48, 57, 58, 58],
     [65, 65, 66, 66, 67, 67, 68, 68],
     [69, 69, 70, 70, 93, 93, 97, 97],
     [98, 98, 99, 99, 100, 100, 101, 101],
     [102, 102, 46, 46, 48, 57, 58, 58],
     [65, 65, 66, 66, 67, 67, 68, 68],
     [69, 69, 70, 70, 93, 93, 97, 97],
     [98, 98, 99, 99, 100, 100, 101, 101],
     [102, 102, 48, 57, 58, 58, 65, 65],
     [66, 66, 67, 67, 68, 68, 69, 69],
     [70, 70, 93, 93, 97, 97, 98, 98],
     [99, 99, 100, 100, 101, 101, 102, 102],
     [48, 48, 49, 49, 50, 50, 51, 57],
     [65, 65, 66, 66, 67, 67, 68, 68],
     [69, 69, 70, 70, 93, 93, 97, 97],
     [98, 98, 99, 99, 100, 100, 101, 101],
     [102, 102, 46, 46, 48, 57, 58, 58],
     [65, 65, 66, 66, 67, 67, 68, 68],
     [69, 69, 70, 70, 93, 93, 97, 97],
     [98, 98, 99, 99, 100, 100, 101, 101],
     [102, 102, 48, 57, 58, 58, 65, 65],
     [66, 66, 67, 67, 68, 68, 69, 69],
     [70, 70, 93, 93, 97, 97, 98, 98],
     [99, 99, 100, 100, 101, 101, 102, 102],
     [48, 57, 58, 58, 65, 65, 66, 66],
     [67, 67, 68, 68, 69, 69, 70, 70],
     [93, 93, 97, 97, 98, 98, 99, 99],
     [100, 100, 101, 101, 102, 102, 58, 58],
     [93, 93, 48, 48, 49, 49, 50, 50],
     [51, 57, 65, 65, 66, 66, 67, 67],
     [68, 68, 69, 69, 70, 70, 97, 97],
     [98, 98, 99, 99, 100, 100, 101, 101],
     [102, 102, 46, 46, 48, 57, 58, 58],
     [65, 65, 66, 66, 67, 67, 68, 68],
     [69, 69, 70, 70, 93, 93, 97, 97],
     [98, 98, 99, 99, 100, 100, 101, 101],
     [102, 102, 46, 46, 48, 57, 58, 58],
     [65, 65, 66, 66, 67, 67, 68, 68],
     [69, 69, 70, 70, 93, 93, 97, 97],
     [98, 98, 99, 99, 100, 100, 101, 101],
     [102, 102, 46, 46, 48, 57, 58, 58],
     [65, 65, 66, 66, 67, 67, 68, 68],
     [69, 69, 70, 70, 93, 93, 97, 97],
     [98, 98, 99, 99, 100, 100, 101, 101],
     [102, 102, 46, 46, 48, 52, 53, 53],
     [54, 57, 58, 58, 65, 65, 66, 66],
     [67, 67, 68, 68, 69, 69, 70, 70],
     [93, 93, 97, 97, 98, 98, 99, 99],
     [100, 100, 101, 101, 102, 102, 46, 46],
     [48, 53, 54, 57, 58, 58, 65, 65],
     [66, 66, 67, 67, 68, 68, 69, 69],
     [70, 70, 93, 93, 97, 97, 98, 98],
     [99, 99, 100, 100, 101, 101, 102, 102],
     [46, 46, 48, 57, 58, 58, 65, 65],
     [66, 66, 67, 67, 68, 68, 69, 69],
     [70, 70, 93, 93, 97, 97, 98, 98],
     [99, 99, 100, 100, 101, 101, 102, 102],
     [46, 46, 48, 57, 58, 58, 65, 65],
     [66, 66, 67, 67, 68, 68, 69, 69],
     [70, 70, 93, 93, 97, 97, 98, 98],
     [99, 99, 100, 100, 101, 101, 102, 102],
     [48, 57, 58, 58, 65, 65, 66, 66],
     [67, 67, 68, 68, 69, 69, 70, 70],
     [93, 93, 97, 97, 98, 98, 99, 99],
     [100, 100, 101, 101, 102, 102, 58, 58],
     [48, 48, 49, 49, 50, 50, 51, 57],
     [65, 65, 66, 66, 67, 67, 68, 68],
     [69, 69, 70, 70, 93, 93, 97, 97],
     [98, 98, 99, 99, 100, 100, 101, 101],
     [102, 102, 46, 46, 48, 57, 58, 58],
     [65, 65, 66, 66, 67, 67, 68, 68],
     [69, 69, 70, 70, 93, 93, 97, 97],
     [98, 98, 99, 99, 100, 100, 101, 101],
     [102, 102, 48, 57, 58, 58, 65, 65],
     [66, 66, 67, 67, 68, 68, 69, 69],
     [70, 70, 93, 93, 97, 97, 98, 98],
     [99, 99, 100, 100, 101, 101, 102, 102],
     [48, 57, 58, 58, 65, 65, 66, 66],
     [67, 67, 68, 68, 69, 69, 70, 70]]"

definition sup_cond_keys_83 :: "int list list" where
  "sup_cond_keys_83 =
    [[93, 93, 97, 97, 98, 98, 99, 99],
     [100, 100, 101, 101, 102, 102, 58, 58],
     [93, 93, 48, 48, 49, 49, 50, 50],
     [51, 57, 65, 65, 66, 66, 67, 67],
     [68, 68, 69, 69, 70, 70, 97, 97],
     [98, 98, 99, 99, 100, 100, 101, 101],
     [102, 102, 46, 46, 48, 57, 58, 58],
     [65, 65, 66, 66, 67, 67, 68, 68],
     [69, 69, 70, 70, 93, 93, 97, 97],
     [98, 98, 99, 99, 100, 100, 101, 101],
     [102, 102, 46, 46, 48, 57, 58, 58],
     [65, 65, 66, 66, 67, 67, 68, 68],
     [69, 69, 70, 70, 93, 93, 97, 97],
     [98, 98, 99, 99, 100, 100, 101, 101],
     [102, 102, 46, 46, 48, 57, 58, 58],
     [65, 65, 66, 66, 67, 67, 68, 68],
     [69, 69, 70, 70, 93, 93, 97, 97],
     [98, 98, 99, 99, 100, 100, 101, 101],
     [102, 102, 46, 46, 48, 52, 53, 53],
     [54, 57, 58, 58, 65, 65, 66, 66],
     [67, 67, 68, 68, 69, 69, 70, 70],
     [93, 93, 97, 97, 98, 98, 99, 99],
     [100, 100, 101, 101, 102, 102, 46, 46],
     [48, 53, 54, 57, 58, 58, 65, 65],
     [66, 66, 67, 67, 68, 68, 69, 69],
     [70, 70, 93, 93, 97, 97, 98, 98],
     [99, 99, 100, 100, 101, 101, 102, 102],
     [46, 46, 48, 57, 58, 58, 65, 65],
     [66, 66, 67, 67, 68, 68, 69, 69],
     [70, 70, 93, 93, 97, 97, 98, 98],
     [99, 99, 100, 100, 101, 101, 102, 102],
     [46, 46, 48, 57, 58, 58, 65, 65],
     [66, 66, 67, 67, 68, 68, 69, 69],
     [70, 70, 93, 93, 97, 97, 98, 98],
     [99, 99, 100, 100, 101, 101, 102, 102],
     [48, 57, 58, 58, 65, 65, 66, 66],
     [67, 67, 68, 68, 69, 69, 70, 70],
     [93, 93, 97, 97, 98, 98, 99, 99],
     [100, 100, 101, 101, 102, 102, 33, 33],
     [35, 35, 36, 36, 37, 37, 38, 38],
     [39, 39, 40, 40, 41, 41, 42, 42],
     [43, 43, 44, 44, 45, 45, 46, 46],
     [47, 47, 48, 57, 58, 58, 59, 59],
     [61, 61, 63, 63, 64, 64, 65, 90],
     [95, 95, 97, 122, 126, 126, 33, 33],
     [35, 35, 36, 36, 37, 37, 38, 38],
     [39, 39, 40, 40, 41, 41, 42, 42],
     [43, 43, 44, 44, 45, 45, 46, 46],
     [47, 47, 48, 57, 58, 58, 59, 59],
     [61, 61, 63, 63, 64, 64, 65, 90],
     [95, 95, 97, 122, 126, 126, 33, 33],
     [35, 35, 36, 36, 37, 37, 38, 38],
     [39, 39, 40, 40, 41, 41, 42, 42],
     [43, 43, 44, 44, 45, 45, 46, 46],
     [47, 47, 48, 57, 58, 58, 59, 59],
     [61, 61, 63, 63, 64, 64, 65, 90],
     [95, 95, 97, 122, 126, 126, 33, 33],
     [35, 35, 36, 36, 37, 37, 38, 38],
     [39, 39, 40, 40, 41, 41, 42, 42],
     [43, 43, 44, 44, 45, 45, 46, 46],
     [47, 47, 48, 57, 58, 58, 59, 59],
     [61, 61, 63, 63, 64, 64, 65, 90],
     [95, 95, 97, 122, 126, 126, 9, 9],
     [13, 13, 32, 32, 33, 33, 35, 35],
     [36, 36, 37, 37, 38, 38, 39, 39],
     [40, 40, 41, 41, 42, 42, 43, 43],
     [44, 44, 45, 45, 46, 46, 47, 47],
     [48, 57, 58, 58, 59, 59, 61, 61],
     [63, 63, 64, 64, 65, 90, 95, 95],
     [97, 122, 126, 126, 33, 33, 35, 35],
     [36, 36, 37, 37, 38, 38, 39, 39],
     [40, 40, 41, 41, 42, 42, 43, 43],
     [44, 44, 45, 45, 46, 46, 47, 47],
     [48, 57, 58, 58, 59, 59, 61, 61],
     [63, 63, 64, 64, 65, 90, 95, 95],
     [97, 122, 126, 126, 9, 9, 13, 13],
     [32, 32, 33, 33, 35, 35, 36, 36],
     [37, 37, 38, 38, 39, 39, 40, 40],
     [41, 41, 42, 42, 43, 43, 44, 44],
     [45, 45, 46, 46, 47, 47, 48, 57],
     [58, 58, 59, 59, 61, 61, 63, 63],
     [64, 64, 65, 90, 95, 95, 97, 122],
     [126, 126, 33, 33, 36, 36, 37, 37],
     [38, 38, 39, 39, 40, 40, 41, 41],
     [42, 42, 43, 43, 44, 44, 45, 45],
     [46, 46, 48, 48, 49, 53, 54, 54],
     [55, 57, 61, 61, 64, 64, 65, 90],
     [95, 95, 97, 122, 126, 126, 33, 33],
     [36, 36, 37, 37, 38, 38, 39, 39],
     [40, 40, 41, 41, 42, 42, 43, 43],
     [44, 44, 45, 45, 46, 46, 48, 48],
     [49, 57, 61, 61, 64, 64, 65, 90],
     [95, 95, 97, 122, 126, 126, 33, 33],
     [36, 36, 37, 37, 38, 38, 39, 39],
     [40, 40, 41, 41, 42, 42, 43, 43],
     [44, 44, 45, 45, 46, 46, 48, 48],
     [49, 57, 61, 61, 64, 64, 65, 90],
     [95, 95, 97, 122, 126, 126, 33, 33],
     [36, 36, 37, 37, 38, 38, 39, 39],
     [40, 40, 41, 41, 42, 42, 43, 43],
     [44, 44, 45, 45, 46, 46, 48, 48],
     [49, 57, 61, 61, 64, 64, 65, 90],
     [95, 95, 97, 122, 126, 126, 9, 9],
     [13, 13, 32, 32, 33, 33, 36, 36],
     [37, 37, 38, 38, 39, 39, 40, 40],
     [41, 41, 42, 42, 43, 43, 44, 44],
     [45, 45, 46, 46, 48, 57, 59, 59],
     [61, 61, 63, 63, 64, 64, 65, 90],
     [95, 95, 97, 122, 126, 126, 9, 9],
     [13, 13, 32, 32, 33, 33, 36, 36],
     [37, 37, 38, 38, 39, 39, 40, 40],
     [41, 41, 42, 42, 43, 43, 44, 44],
     [45, 45, 46, 46, 48, 57, 59, 59],
     [61, 61, 63, 63, 64, 64, 65, 90],
     [95, 95, 97, 122, 126, 126, 9, 9],
     [13, 13, 32, 32, 33, 33, 36, 36],
     [37, 37, 38, 38, 39, 39, 40, 40],
     [41, 41, 42, 42, 43, 43, 44, 44],
     [45, 45, 46, 46, 48, 57, 59, 59],
     [61, 61, 63, 63, 64, 64, 65, 90],
     [95, 95, 97, 122, 126, 126, 9, 9],
     [13, 13, 32, 32, 33, 33, 36, 36],
     [37, 37, 38, 38, 39, 39, 40, 40],
     [41, 41, 42, 42, 43, 43, 44, 44],
     [45, 45, 46, 46, 48, 57, 59, 59],
     [61, 61, 63, 63, 64, 64, 65, 90],
     [95, 95, 97, 122, 126, 126, 9, 9],
     [13, 13, 32, 32, 33, 33, 36, 36],
     [37, 37, 38, 38, 39, 39, 40, 40],
     [41, 41, 42, 42, 43, 43, 44, 44],
     [45, 45, 46, 46, 48, 57, 59, 59],
     [61, 61, 63, 63, 64, 64, 65, 90],
     [95, 95, 97, 122, 126, 126, 9, 9],
     [13, 13, 32, 32, 33, 33, 36, 36],
     [37, 37, 38, 38, 39, 39, 40, 40],
     [41, 41, 42, 42, 43, 43, 44, 44],
     [45, 45, 46, 46, 48, 52, 53, 53],
     [54, 57, 59, 59, 61, 61, 63, 63],
     [64, 64, 65, 90, 95, 95, 97, 122],
     [126, 126, 9, 9, 13, 13, 32, 32],
     [33, 33, 36, 36, 37, 37, 38, 38],
     [39, 39, 40, 40, 41, 41, 42, 42],
     [43, 43, 44, 44, 45, 45, 46, 46],
     [48, 52, 53, 53, 54, 57, 59, 59],
     [61, 61, 63, 63, 64, 64, 65, 90],
     [95, 95, 97, 122, 126, 126, 9, 9],
     [13, 13, 32, 32, 33, 33, 36, 36],
     [37, 37, 38, 38, 39, 39, 40, 40],
     [41, 41, 42, 42, 43, 43, 44, 44],
     [45, 45, 46, 46, 48, 50, 51, 51]]"

definition sup_cond_keys_84 :: "int list list" where
  "sup_cond_keys_84 =
    [[52, 57, 59, 59, 61, 61, 63, 63],
     [64, 64, 65, 90, 95, 95, 97, 122],
     [126, 126, 9, 9, 13, 13, 32, 32],
     [33, 33, 36, 36, 37, 37, 38, 38],
     [39, 39, 40, 40, 41, 41, 42, 42],
     [43, 43, 44, 44, 45, 45, 46, 46],
     [48, 53, 54, 57, 59, 59, 61, 61],
     [63, 63, 64, 64, 65, 90, 95, 95],
     [97, 122, 126, 126, 9, 9, 13, 13],
     [32, 32, 33, 33, 35, 35, 36, 36],
     [37, 37, 38, 38, 39, 39, 40, 40],
     [41, 41, 42, 42, 43, 43, 44, 44],
     [45, 45, 46, 46, 47, 47, 48, 57],
     [58, 58, 59, 59, 61, 61, 63, 63],
     [64, 64, 65, 75, 76, 76, 77, 78],
     [79, 79, 80, 83, 84, 84, 85, 90],
     [91, 91, 93, 93, 95, 95, 96, 96],
     [97, 107, 108, 108, 109, 110, 111, 111],
     [112, 115, 116, 116, 117, 122, 126, 126],
     [9, 9, 13, 13, 32, 32, 33, 33],
     [35, 35, 36, 36, 37, 37, 38, 38],
     [39, 39, 40, 40, 41, 41, 42, 42],
     [43, 43, 44, 44, 45, 45, 46, 46],
     [47, 47, 48, 57, 58, 58, 59, 59],
     [61, 61, 63, 63, 64, 64, 65, 90],
     [91, 91, 93, 93, 95, 95, 96, 96],
     [97, 122, 126, 126, 9, 9, 13, 13],
     [32, 32, 33, 33, 37, 37, 39, 39],
     [42, 42, 43, 43, 45, 45, 46, 46],
     [48, 57, 59, 59, 61, 61, 65, 65],
     [66, 66, 67, 67, 68, 68, 69, 69],
     [70, 70, 71, 90, 95, 95, 96, 96],
     [97, 97, 98, 98, 99, 99, 100, 100],
     [101, 101, 102, 102, 103, 122, 126, 126],
     [9, 9, 13, 13, 32, 32, 33, 33],
     [37, 37, 39, 39, 42, 42, 43, 43],
     [45, 45, 46, 46, 48, 57, 59, 59],
     [61, 61, 65, 65, 66, 66, 67, 67],
     [68, 68, 69, 69, 70, 70, 71, 90],
     [95, 95, 96, 96, 97, 97, 98, 98],
     [99, 99, 100, 100, 101, 101, 102, 102],
     [103, 122, 126, 126, 9, 9, 13, 13],
     [32, 32, 33, 33, 34, 34, 35, 35],
     [36, 36, 37, 37, 38, 38, 39, 39],
     [40, 40, 41, 41, 42, 42, 43, 43],
     [44, 44, 45, 45, 46, 46, 47, 47],
     [48, 48, 49, 49, 50, 50, 51, 57],
     [58, 58, 59, 59, 61, 61, 63, 63],
     [64, 64, 65, 90, 91, 91, 93, 93],
     [95, 95, 96, 96, 97, 122, 126, 126],
     [9, 9, 13, 13, 32, 32, 33, 33],
     [35, 35, 36, 36, 37, 37, 38, 38],
     [39, 39, 40, 40, 41, 41, 42, 42],
     [43, 43, 44, 44, 45, 45, 46, 46],
     [47, 47, 48, 57, 58, 58, 59, 59],
     [61, 61, 63, 63, 64, 64, 65, 90],
     [91, 91, 93, 93, 95, 95, 96, 96],
     [97, 122, 126, 126, 9, 9, 13, 13],
     [32, 32, 33, 33, 37, 37, 39, 39],
     [42, 42, 43, 43, 45, 45, 46, 46],
     [48, 57, 59, 59, 65, 65, 66, 66],
     [67, 67, 68, 68, 69, 69, 70, 70],
     [71, 90, 95, 95, 96, 96, 97, 97],
     [98, 98, 99, 99, 100, 100, 101, 101],
     [102, 102, 103, 122, 126, 126, 9, 9],
     [13, 13, 32, 32, 33, 33, 37, 37],
     [39, 39, 42, 42, 43, 43, 45, 45],
     [46, 46, 48, 57, 59, 59, 65, 65],
     [66, 66, 67, 67, 68, 68, 69, 69],
     [70, 70, 71, 90, 95, 95, 96, 96],
     [97, 97, 98, 98, 99, 99, 100, 100],
     [101, 101, 102, 102, 103, 122, 126, 126],
     [9, 9, 13, 13, 32, 32, 33, 33],
     [35, 35, 36, 36, 37, 37, 38, 38],
     [39, 39, 40, 40, 41, 41, 42, 42],
     [43, 43, 44, 44, 45, 45, 46, 46],
     [47, 47, 48, 57, 58, 58, 59, 59],
     [61, 61, 63, 63, 64, 64, 65, 81],
     [82, 82, 83, 90, 91, 91, 93, 93],
     [95, 95, 96, 96, 97, 113, 114, 114],
     [115, 122, 126, 126, 9, 9, 13, 13],
     [32, 32, 33, 33, 35, 35, 36, 36],
     [37, 37, 38, 38, 39, 39, 40, 40],
     [41, 41, 42, 42, 43, 43, 44, 44],
     [45, 45, 46, 46, 47, 47, 48, 57],
     [58, 58, 59, 59, 61, 61, 63, 63],
     [64, 64, 65, 90, 91, 91, 93, 93],
     [95, 95, 96, 96, 97, 122, 126, 126],
     [9, 9, 13, 13, 32, 32, 33, 33],
     [34, 34, 35, 35, 36, 36, 37, 37],
     [38, 38, 39, 39, 40, 40, 41, 41],
     [42, 42, 43, 43, 44, 44, 45, 45],
     [46, 46, 47, 47, 48, 48, 49, 49],
     [50, 50, 51, 57, 58, 58, 59, 59],
     [61, 61, 63, 63, 64, 64, 65, 90],
     [91, 91, 93, 93, 95, 95, 96, 96],
     [97, 122, 126, 126, 9, 9, 13, 13],
     [32, 32, 33, 33, 35, 35, 36, 36],
     [37, 37, 38, 38, 39, 39, 40, 40],
     [41, 41, 42, 42, 43, 43, 44, 44],
     [45, 45, 46, 46, 47, 47, 48, 57],
     [58, 58, 59, 59, 61, 61, 63, 63],
     [64, 64, 65, 90, 91, 91, 93, 93],
     [95, 95, 96, 96, 97, 122, 126, 126],
     [9, 9, 13, 13, 32, 32, 33, 33],
     [37, 37, 39, 39, 42, 42, 43, 43],
     [45, 45, 46, 46, 48, 57, 59, 59],
     [63, 63, 65, 65, 66, 66, 67, 67],
     [68, 68, 69, 69, 70, 70, 71, 90],
     [95, 95, 96, 96, 97, 97, 98, 98],
     [99, 99, 100, 100, 101, 101, 102, 102],
     [103, 122, 126, 126, 9, 9, 13, 13],
     [32, 32, 33, 33, 37, 37, 39, 39],
     [42, 42, 43, 43, 45, 45, 46, 46],
     [48, 57, 59, 59, 63, 63, 65, 65],
     [66, 66, 67, 67, 68, 68, 69, 69],
     [70, 70, 71, 90, 95, 95, 96, 96],
     [97, 97, 98, 98, 99, 99, 100, 100],
     [101, 101, 102, 102, 103, 122, 126, 126],
     [9, 9, 13, 13, 32, 32, 33, 33],
     [35, 35, 36, 36, 37, 37, 38, 38],
     [39, 39, 40, 40, 41, 41, 42, 42],
     [43, 43, 44, 44, 45, 45, 46, 46],
     [47, 47, 48, 57, 58, 58, 59, 59],
     [61, 61, 63, 63, 64, 64, 65, 65],
     [66, 66, 67, 85, 86, 86, 87, 90],
     [91, 91, 93, 93, 95, 95, 96, 96],
     [97, 97, 98, 98, 99, 117, 118, 118],
     [119, 122, 126, 126, 9, 9, 13, 13],
     [32, 32, 33, 33, 35, 35, 36, 36],
     [37, 37, 38, 38, 39, 39, 40, 40],
     [41, 41, 42, 42, 43, 43, 44, 44],
     [45, 45, 46, 46, 47, 47, 48, 57],
     [58, 58, 59, 59, 61, 61, 63, 63],
     [64, 64, 65, 90, 91, 91, 93, 93],
     [95, 95, 96, 96, 97, 122, 126, 126],
     [9, 9, 13, 13, 32, 32, 33, 33],
     [35, 35, 36, 36, 37, 37, 38, 38],
     [39, 39, 40, 40, 41, 41, 42, 42],
     [43, 43, 44, 44, 45, 45, 46, 46],
     [47, 47, 48, 57, 58, 58, 59, 59],
     [61, 61, 63, 63, 64, 64, 65, 72],
     [73, 73, 74, 90, 91, 91, 93, 93],
     [95, 95, 96, 96, 97, 104, 105, 105],
     [106, 122, 126, 126, 9, 9, 13, 13],
     [32, 32, 33, 33, 35, 35, 36, 36],
     [37, 37, 38, 38, 39, 39, 40, 40],
     [41, 41, 42, 42, 43, 43, 44, 44],
     [45, 45, 46, 46, 47, 47, 48, 57],
     [58, 58, 59, 59, 61, 61, 63, 63]]"

definition sup_cond_keys_85 :: "int list list" where
  "sup_cond_keys_85 =
    [[64, 64, 65, 67, 68, 68, 69, 90],
     [91, 91, 93, 93, 95, 95, 96, 96],
     [97, 99, 100, 100, 101, 122, 126, 126],
     [9, 9, 13, 13, 32, 32, 33, 33],
     [35, 35, 36, 36, 37, 37, 38, 38],
     [39, 39, 40, 40, 41, 41, 42, 42],
     [43, 43, 44, 44, 45, 45, 46, 46],
     [47, 47, 48, 57, 58, 58, 59, 59],
     [61, 61, 63, 63, 64, 64, 65, 90],
     [91, 91, 93, 93, 95, 95, 96, 96],
     [97, 122, 126, 126, 9, 9, 13, 13],
     [32, 32, 33, 33, 34, 34, 35, 35],
     [36, 36, 37, 37, 38, 38, 39, 39],
     [40, 40, 41, 41, 42, 42, 43, 43],
     [44, 44, 45, 45, 46, 46, 47, 47],
     [48, 48, 49, 49, 50, 50, 51, 57],
     [58, 58, 59, 59, 61, 61, 63, 63],
     [64, 64, 65, 90, 91, 91, 93, 93],
     [95, 95, 96, 96, 97, 122, 126, 126],
     [9, 9, 13, 13, 32, 32, 33, 33],
     [35, 35, 36, 36, 37, 37, 38, 38],
     [39, 39, 40, 40, 41, 41, 42, 42],
     [43, 43, 44, 44, 45, 45, 46, 46],
     [47, 47, 48, 57, 58, 58, 59, 59],
     [61, 61, 63, 63, 64, 64, 65, 90],
     [91, 91, 93, 93, 95, 95, 96, 96],
     [97, 122, 126, 126, 9, 9, 13, 13],
     [32, 32, 33, 33, 37, 37, 39, 39],
     [42, 42, 43, 43, 45, 45, 46, 46],
     [48, 57, 59, 59, 63, 63, 65, 65],
     [66, 66, 67, 67, 68, 68, 69, 69],
     [70, 70, 71, 90, 95, 95, 96, 96],
     [97, 97, 98, 98, 99, 99, 100, 100],
     [101, 101, 102, 102, 103, 122, 126, 126],
     [9, 9, 13, 13, 32, 32, 33, 33],
     [37, 37, 39, 39, 42, 42, 43, 43],
     [45, 45, 46, 46, 48, 57, 59, 59],
     [63, 63, 65, 65, 66, 66, 67, 67],
     [68, 68, 69, 69, 70, 70, 71, 90],
     [95, 95, 96, 96, 97, 97, 98, 98],
     [99, 99, 100, 100, 101, 101, 102, 102],
     [103, 122, 126, 126, 9, 9, 13, 13],
     [32, 32, 33, 33, 35, 35, 36, 36],
     [37, 37, 38, 38, 39, 39, 40, 40],
     [41, 41, 42, 42, 43, 43, 44, 44],
     [45, 45, 46, 46, 47, 47, 48, 57],
     [58, 58, 59, 59, 61, 61, 63, 63],
     [64, 64, 65, 81, 82, 82, 83, 90],
     [91, 91, 93, 93, 95, 95, 96, 96],
     [97, 113, 114, 114, 115, 122, 126, 126],
     [9, 9, 13, 13, 32, 32, 33, 33],
     [35, 35, 36, 36, 37, 37, 38, 38],
     [39, 39, 40, 40, 41, 41, 42, 42],
     [43, 43, 44, 44, 45, 45, 46, 46],
     [47, 47, 48, 57, 58, 58, 59, 59],
     [61, 61, 63, 63, 64, 64, 65, 65],
     [66, 90, 91, 91, 93, 93, 95, 95],
     [96, 96, 97, 97, 98, 122, 126, 126],
     [9, 9, 13, 13, 32, 32, 33, 33],
     [35, 35, 36, 36, 37, 37, 38, 38],
     [39, 39, 40, 40, 41, 41, 42, 42],
     [43, 43, 44, 44, 45, 45, 46, 46],
     [47, 47, 48, 57, 58, 58, 59, 59],
     [61, 61, 63, 63, 64, 64, 65, 77],
     [78, 78, 79, 90, 91, 91, 93, 93],
     [95, 95, 96, 96, 97, 109, 110, 110],
     [111, 122, 126, 126, 9, 9, 13, 13],
     [32, 32, 33, 33, 35, 35, 36, 36],
     [37, 37, 38, 38, 39, 39, 40, 40],
     [41, 41, 42, 42, 43, 43, 44, 44],
     [45, 45, 46, 46, 47, 47, 48, 57],
     [58, 58, 59, 59, 61, 61, 63, 63],
     [64, 64, 65, 82, 83, 83, 84, 90],
     [91, 91, 93, 93, 95, 95, 96, 96],
     [97, 114, 115, 115, 116, 122, 126, 126],
     [9, 9, 13, 13, 32, 32, 33, 33],
     [35, 35, 36, 36, 37, 37, 38, 38],
     [39, 39, 40, 40, 41, 41, 42, 42],
     [43, 43, 44, 44, 45, 45, 46, 46],
     [47, 47, 48, 57, 58, 58, 59, 59],
     [61, 61, 63, 63, 64, 64, 65, 79],
     [80, 80, 81, 90, 91, 91, 93, 93],
     [95, 95, 96, 96, 97, 111, 112, 112],
     [113, 122, 126, 126, 9, 9, 13, 13],
     [32, 32, 33, 33, 35, 35, 36, 36],
     [37, 37, 38, 38, 39, 39, 40, 40],
     [41, 41, 42, 42, 43, 43, 44, 44],
     [45, 45, 46, 46, 47, 47, 48, 57],
     [58, 58, 59, 59, 61, 61, 63, 63],
     [64, 64, 65, 78, 79, 79, 80, 90],
     [91, 91, 93, 93, 95, 95, 96, 96],
     [97, 110, 111, 111, 112, 122, 126, 126],
     [9, 9, 13, 13, 32, 32, 33, 33],
     [35, 35, 36, 36, 37, 37, 38, 38],
     [39, 39, 40, 40, 41, 41, 42, 42],
     [43, 43, 44, 44, 45, 45, 46, 46],
     [47, 47, 48, 57, 58, 58, 59, 59],
     [61, 61, 63, 63, 64, 64, 65, 81],
     [82, 82, 83, 90, 91, 91, 93, 93],
     [95, 95, 96, 96, 97, 113, 114, 114],
     [115, 122, 126, 126, 9, 9, 13, 13],
     [32, 32, 33, 33, 35, 35, 36, 36],
     [37, 37, 38, 38, 39, 39, 40, 40],
     [41, 41, 42, 42, 43, 43, 44, 44],
     [45, 45, 46, 46, 47, 47, 48, 57],
     [58, 58, 59, 59, 61, 61, 63, 63],
     [64, 64, 65, 83, 84, 84, 85, 90],
     [91, 91, 93, 93, 95, 95, 96, 96],
     [97, 115, 116, 116, 117, 122, 126, 126],
     [9, 9, 13, 13, 32, 32, 33, 33],
     [35, 35, 36, 36, 37, 37, 38, 38],
     [39, 39, 40, 40, 41, 41, 42, 42],
     [43, 43, 44, 44, 45, 45, 46, 46],
     [47, 47, 48, 57, 58, 58, 59, 59],
     [61, 61, 63, 63, 64, 64, 65, 90],
     [91, 91, 93, 93, 95, 95, 96, 96],
     [97, 122, 126, 126, 9, 9, 13, 13],
     [32, 32, 33, 33, 34, 34, 35, 35],
     [36, 36, 37, 37, 38, 38, 39, 39],
     [40, 40, 41, 41, 42, 42, 43, 43],
     [44, 44, 45, 45, 46, 46, 47, 47],
     [48, 48, 49, 49, 50, 50, 51, 57],
     [58, 58, 59, 59, 61, 61, 63, 63],
     [64, 64, 65, 82, 83, 83, 84, 84],
     [85, 85, 86, 86, 87, 87, 88, 90],
     [91, 91, 93, 93, 95, 95, 96, 96],
     [97, 114, 115, 115, 116, 116, 117, 117],
     [118, 118, 119, 119, 120, 122, 126, 126],
     [9, 9, 13, 13, 32, 32, 33, 33],
     [35, 35, 36, 36, 37, 37, 38, 38],
     [39, 39, 40, 40, 41, 41, 42, 42],
     [43, 43, 44, 44, 45, 45, 46, 46],
     [47, 47, 48, 57, 58, 58, 59, 59],
     [61, 61, 63, 63, 64, 64, 65, 90],
     [91, 91, 93, 93, 95, 95, 96, 96],
     [97, 122, 126, 126, 9, 9, 13, 13],
     [32, 32, 33, 33, 37, 37, 39, 39],
     [42, 42, 43, 43, 45, 45, 46, 46],
     [48, 57, 59, 59, 63, 63, 65, 65],
     [66, 66, 67, 67, 68, 68, 69, 69],
     [70, 70, 71, 90, 95, 95, 96, 96],
     [97, 97, 98, 98, 99, 99, 100, 100],
     [101, 101, 102, 102, 103, 122, 126, 126],
     [9, 9, 13, 13, 32, 32, 33, 33],
     [37, 37, 39, 39, 42, 42, 43, 43],
     [45, 45, 46, 46, 48, 57, 59, 59],
     [63, 63, 65, 65, 66, 66, 67, 67],
     [68, 68, 69, 69, 70, 70, 71, 90],
     [95, 95, 96, 96, 97, 97, 98, 98],
     [99, 99, 100, 100, 101, 101, 102, 102]]"

definition sup_cond_keys_86 :: "int list list" where
  "sup_cond_keys_86 =
    [[103, 122, 126, 126, 9, 9, 13, 13],
     [32, 32, 33, 33, 35, 35, 36, 36],
     [37, 37, 38, 38, 39, 39, 40, 40],
     [41, 41, 42, 42, 43, 43, 44, 44],
     [45, 45, 46, 46, 47, 47, 48, 57],
     [58, 58, 59, 59, 61, 61, 63, 63],
     [64, 64, 65, 66, 67, 67, 68, 90],
     [91, 91, 93, 93, 95, 95, 96, 96],
     [97, 98, 99, 99, 100, 122, 126, 126],
     [9, 9, 13, 13, 32, 32, 33, 33],
     [35, 35, 36, 36, 37, 37, 38, 38],
     [39, 39, 40, 40, 41, 41, 42, 42],
     [43, 43, 44, 44, 45, 45, 46, 46],
     [47, 47, 48, 57, 58, 58, 59, 59],
     [61, 61, 63, 63, 64, 64, 65, 83],
     [84, 84, 85, 90, 91, 91, 93, 93],
     [95, 95, 96, 96, 97, 115, 116, 116],
     [117, 122, 126, 126, 9, 9, 13, 13],
     [32, 32, 33, 33, 35, 35, 36, 36],
     [37, 37, 38, 38, 39, 39, 40, 40],
     [41, 41, 42, 42, 43, 43, 44, 44],
     [45, 45, 46, 46, 47, 47, 48, 57],
     [58, 58, 59, 59, 61, 61, 63, 63],
     [64, 64, 65, 79, 80, 80, 81, 90],
     [91, 91, 93, 93, 95, 95, 96, 96],
     [97, 111, 112, 112, 113, 122, 126, 126],
     [9, 9, 13, 13, 32, 32, 33, 33],
     [35, 35, 36, 36, 37, 37, 38, 38],
     [39, 39, 40, 40, 41, 41, 42, 42],
     [43, 43, 44, 44, 45, 45, 46, 46],
     [47, 47, 48, 57, 58, 58, 59, 59],
     [61, 61, 63, 63, 64, 64, 65, 90],
     [91, 91, 93, 93, 95, 95, 96, 96],
     [97, 122, 126, 126, 9, 9, 13, 13],
     [32, 32, 33, 33, 35, 35, 36, 36],
     [37, 37, 38, 38, 39, 39, 40, 40],
     [41, 41, 42, 42, 43, 43, 44, 44],
     [45, 45, 46, 46, 47, 47, 48, 57],
     [58, 58, 59, 59, 61, 61, 63, 63],
     [64, 64, 65, 66, 67, 67, 68, 75],
     [76, 76, 77, 90, 91, 91, 93, 93],
     [95, 95, 96, 96, 97, 98, 99, 99],
     [100, 107, 108, 108, 109, 122, 126, 126],
     [9, 9, 13, 13, 32, 32, 33, 33],
     [35, 35, 36, 36, 37, 37, 38, 38],
     [39, 39, 40, 40, 41, 41, 42, 42],
     [43, 43, 44, 44, 45, 45, 46, 46],
     [47, 47, 48, 57, 58, 58, 59, 59],
     [61, 61, 63, 63, 64, 64, 65, 79],
     [80, 80, 81, 90, 91, 91, 93, 93],
     [95, 95, 96, 96, 97, 111, 112, 112],
     [113, 122, 126, 126, 9, 9, 13, 13],
     [32, 32, 33, 33, 35, 35, 36, 36],
     [37, 37, 38, 38, 39, 39, 40, 40],
     [41, 41, 42, 42, 43, 43, 44, 44],
     [45, 45, 46, 46, 47, 47, 48, 57],
     [58, 58, 59, 59, 61, 61, 63, 63],
     [64, 64, 65, 90, 91, 91, 93, 93],
     [95, 95, 96, 96, 97, 122, 126, 126],
     [9, 9, 13, 13, 32, 32, 33, 33],
     [35, 35, 36, 36, 37, 37, 38, 38],
     [39, 39, 40, 40, 41, 41, 42, 42],
     [43, 43, 44, 44, 45, 45, 46, 46],
     [47, 47, 48, 57, 58, 58, 59, 59],
     [61, 61, 63, 63, 64, 64, 65, 82],
     [83, 83, 84, 90, 91, 91, 93, 93],
     [95, 95, 96, 96, 97, 114, 115, 115],
     [116, 122, 126, 126, 9, 9, 13, 13],
     [32, 32, 33, 33, 35, 35, 36, 36],
     [37, 37, 38, 38, 39, 39, 40, 40],
     [41, 41, 42, 42, 43, 43, 44, 44],
     [45, 45, 46, 46, 47, 47, 48, 57],
     [58, 58, 59, 59, 61, 61, 63, 63],
     [64, 64, 65, 90, 91, 91, 93, 93],
     [95, 95, 96, 96, 97, 122, 126, 126],
     [9, 9, 13, 13, 32, 32, 33, 33],
     [35, 35, 36, 36, 37, 37, 38, 38],
     [39, 39, 40, 40, 41, 41, 42, 42],
     [43, 43, 44, 44, 45, 45, 46, 46],
     [47, 47, 48, 57, 58, 58, 59, 59],
     [61, 61, 63, 63, 64, 64, 65, 67],
     [68, 68, 69, 90, 91, 91, 93, 93],
     [95, 95, 96, 96, 97, 99, 100, 100],
     [101, 122, 126, 126, 9, 9, 13, 13],
     [32, 32, 33, 33, 35, 35, 36, 36],
     [37, 37, 38, 38, 39, 39, 40, 40],
     [41, 41, 42, 42, 43, 43, 44, 44],
     [45, 45, 46, 46, 47, 47, 48, 57],
     [58, 58, 59, 59, 61, 61, 63, 63],
     [64, 64, 65, 79, 80, 80, 81, 90],
     [91, 91, 93, 93, 95, 95, 96, 96],
     [97, 111, 112, 112, 113, 122, 126, 126],
     [9, 9, 13, 13, 32, 32, 33, 33],
     [35, 35, 36, 36, 37, 37, 38, 38],
     [39, 39, 40, 40, 41, 41, 42, 42],
     [43, 43, 44, 44, 45, 45, 46, 46],
     [47, 47, 48, 57, 58, 58, 59, 59],
     [61, 61, 63, 63, 64, 64, 65, 90],
     [91, 91, 93, 93, 95, 95, 96, 96],
     [97, 122, 126, 126, 9, 9, 13, 13],
     [32, 32, 33, 33, 35, 35, 36, 36],
     [37, 37, 38, 38, 39, 39, 40, 40],
     [41, 41, 42, 42, 43, 43, 44, 44],
     [45, 45, 46, 46, 47, 47, 48, 57],
     [58, 58, 59, 59, 61, 61, 63, 63],
     [64, 64, 65, 82, 83, 83, 84, 90],
     [91, 91, 93, 93, 95, 95, 96, 96],
     [97, 114, 115, 115, 116, 122, 126, 126],
     [9, 9, 13, 13, 32, 32, 33, 33],
     [35, 35, 36, 36, 37, 37, 38, 38],
     [39, 39, 40, 40, 41, 41, 42, 42],
     [43, 43, 44, 44, 45, 45, 46, 46],
     [47, 47, 48, 57, 58, 58, 59, 59],
     [61, 61, 63, 63, 64, 64, 65, 82],
     [83, 83, 84, 90, 91, 91, 93, 93],
     [95, 95, 96, 96, 97, 114, 115, 115],
     [116, 122, 126, 126, 9, 9, 13, 13],
     [32, 32, 33, 33, 35, 35, 36, 36],
     [37, 37, 38, 38, 39, 39, 40, 40],
     [41, 41, 42, 42, 43, 43, 44, 44],
     [45, 45, 46, 46, 47, 47, 48, 57],
     [58, 58, 59, 59, 61, 61, 63, 63],
     [64, 64, 65, 90, 91, 91, 93, 93],
     [95, 95, 96, 96, 97, 122, 126, 126],
     [33, 33, 35, 35, 36, 36, 37, 37],
     [38, 38, 39, 39, 40, 40, 41, 41],
     [42, 42, 43, 43, 44, 44, 45, 45],
     [46, 46, 47, 47, 48, 48, 49, 49],
     [50, 50, 51, 57, 58, 58, 59, 59],
     [61, 61, 63, 63, 64, 64, 65, 90],
     [95, 95, 97, 122, 126, 126, 33, 33],
     [35, 35, 36, 36, 37, 37, 38, 38],
     [39, 39, 40, 40, 41, 41, 42, 42],
     [43, 43, 44, 44, 45, 45, 46, 46],
     [47, 47, 48, 57, 58, 58, 59, 59],
     [61, 61, 63, 63, 64, 64, 65, 90],
     [95, 95, 97, 122, 126, 126, 33, 33],
     [35, 35, 36, 36, 37, 37, 38, 38],
     [39, 39, 40, 40, 41, 41, 42, 42],
     [43, 43, 44, 44, 45, 45, 46, 46],
     [47, 47, 48, 48, 49, 49, 50, 50],
     [51, 57, 58, 58, 59, 59, 61, 61],
     [63, 63, 64, 64, 65, 90, 95, 95],
     [97, 122, 126, 126, 33, 33, 35, 35],
     [36, 36, 37, 37, 38, 38, 39, 39],
     [40, 40, 41, 41, 42, 42, 43, 43],
     [44, 44, 45, 45, 46, 46, 47, 47],
     [48, 57, 58, 58, 59, 59, 61, 61],
     [63, 63, 64, 64, 65, 90, 95, 95],
     [97, 122, 126, 126, 33, 33, 35, 35]]"

definition sup_cond_keys_87 :: "int list list" where
  "sup_cond_keys_87 =
    [[36, 36, 37, 37, 38, 38, 39, 39],
     [40, 40, 41, 41, 42, 42, 43, 43],
     [44, 44, 45, 45, 46, 46, 47, 47],
     [48, 48, 49, 49, 50, 50, 51, 57],
     [58, 58, 59, 59, 61, 61, 63, 63],
     [64, 64, 65, 90, 95, 95, 97, 122],
     [126, 126, 9, 9, 13, 13, 32, 32],
     [33, 33, 35, 35, 36, 36, 37, 37],
     [38, 38, 39, 39, 40, 40, 41, 41],
     [42, 42, 43, 43, 44, 44, 45, 45],
     [46, 46, 47, 47, 48, 57, 58, 58],
     [59, 59, 61, 61, 63, 63, 64, 64],
     [65, 90, 95, 95, 97, 122, 126, 126],
     [9, 9, 13, 13, 32, 32, 33, 33],
     [35, 35, 36, 36, 37, 37, 38, 38],
     [39, 39, 40, 40, 41, 41, 42, 42],
     [43, 43, 44, 44, 45, 45, 46, 46],
     [47, 47, 48, 57, 58, 58, 59, 59],
     [61, 61, 63, 63, 64, 64, 65, 90],
     [95, 95, 97, 122, 126, 126, 9, 9],
     [13, 13, 32, 32, 33, 33, 35, 35],
     [36, 36, 37, 37, 38, 38, 39, 39],
     [40, 40, 41, 41, 42, 42, 43, 43],
     [44, 44, 45, 45, 46, 46, 47, 47],
     [48, 57, 58, 58, 59, 59, 61, 61],
     [63, 63, 64, 64, 65, 90, 95, 95],
     [97, 122, 126, 126, 9, 9, 13, 13],
     [32, 32, 33, 33, 35, 35, 36, 36],
     [37, 37, 38, 38, 39, 39, 40, 40],
     [41, 41, 42, 42, 43, 43, 44, 44],
     [45, 45, 46, 46, 47, 47, 48, 52],
     [53, 53, 54, 57, 58, 58, 59, 59],
     [61, 61, 63, 63, 64, 64, 65, 90],
     [95, 95, 97, 122, 126, 126, 9, 9],
     [13, 13, 32, 32, 33, 33, 35, 35],
     [36, 36, 37, 37, 38, 38, 39, 39],
     [40, 40, 41, 41, 42, 42, 43, 43],
     [44, 44, 45, 45, 46, 46, 47, 47],
     [48, 53, 54, 57, 58, 58, 59, 59],
     [61, 61, 63, 63, 64, 64, 65, 90],
     [95, 95, 97, 122, 126, 126, 33, 33],
     [35, 35, 36, 36, 37, 37, 38, 38],
     [39, 39, 40, 40, 41, 41, 42, 42],
     [43, 43, 44, 44, 45, 45, 46, 46],
     [47, 47, 48, 57, 58, 58, 59, 59],
     [61, 61, 63, 63, 64, 64, 65, 90],
     [95, 95, 97, 122, 126, 126, 33, 33],
     [35, 35, 36, 36, 37, 37, 38, 38],
     [39, 39, 40, 40, 41, 41, 42, 42],
     [43, 43, 44, 44, 45, 45, 46, 46],
     [47, 47, 48, 57, 58, 58, 59, 59],
     [61, 61, 63, 63, 64, 64, 65, 90],
     [95, 95, 97, 122, 126, 126, 33, 33],
     [35, 35, 36, 36, 37, 37, 38, 38],
     [39, 39, 40, 40, 41, 41, 42, 42],
     [43, 43, 44, 44, 45, 45, 46, 46],
     [47, 47, 48, 52, 53, 53, 54, 57],
     [58, 58, 59, 59, 61, 61, 63, 63],
     [64, 64, 65, 90, 95, 95, 97, 122],
     [126, 126, 33, 33, 35, 35, 36, 36],
     [37, 37, 38, 38, 39, 39, 40, 40],
     [41, 41, 42, 42, 43, 43, 44, 44],
     [45, 45, 46, 46, 47, 47, 48, 53],
     [54, 57, 58, 58, 59, 59, 61, 61],
     [63, 63, 64, 64, 65, 90, 95, 95],
     [97, 122, 126, 126, 33, 33, 35, 35],
     [36, 36, 37, 37, 38, 38, 39, 39],
     [40, 40, 41, 41, 42, 42, 43, 43],
     [44, 44, 45, 45, 46, 46, 47, 47],
     [48, 57, 58, 58, 59, 59, 61, 61],
     [63, 63, 64, 64, 65, 90, 95, 95],
     [97, 122, 126, 126, 33, 33, 35, 35],
     [36, 36, 37, 37, 38, 38, 39, 39],
     [40, 40, 41, 41, 42, 42, 43, 43],
     [44, 44, 45, 45, 46, 46, 47, 47],
     [48, 57, 58, 58, 59, 59, 61, 61],
     [63, 63, 64, 64, 65, 90, 95, 95],
     [97, 122, 126, 126, 33, 33, 35, 35],
     [36, 36, 37, 37, 38, 38, 39, 39],
     [40, 40, 41, 41, 42, 42, 43, 43],
     [44, 44, 45, 45, 46, 46, 47, 47],
     [48, 52, 53, 53, 54, 57, 58, 58],
     [59, 59, 61, 61, 63, 63, 64, 64],
     [65, 90, 95, 95, 97, 122, 126, 126],
     [33, 33, 35, 35, 36, 36, 37, 37],
     [38, 38, 39, 39, 40, 40, 41, 41],
     [42, 42, 43, 43, 44, 44, 45, 45],
     [46, 46, 47, 47, 48, 53, 54, 57],
     [58, 58, 59, 59, 61, 61, 63, 63],
     [64, 64, 65, 90, 95, 95, 97, 122],
     [126, 126, 33, 33, 35, 35, 36, 36],
     [37, 37, 38, 38, 39, 39, 40, 40],
     [41, 41, 42, 42, 43, 43, 44, 44],
     [45, 45, 46, 46, 47, 47, 48, 57],
     [58, 58, 59, 59, 61, 61, 63, 63],
     [64, 64, 65, 90, 95, 95, 97, 122],
     [126, 126, 33, 33, 35, 35, 36, 36],
     [37, 37, 38, 38, 39, 39, 40, 40],
     [41, 41, 42, 42, 43, 43, 44, 44],
     [45, 45, 46, 46, 47, 47, 48, 57],
     [58, 58, 59, 59, 61, 61, 63, 63],
     [64, 64, 65, 90, 95, 95, 97, 122],
     [126, 126, 33, 33, 35, 35, 36, 36],
     [37, 37, 38, 38, 39, 39, 40, 40],
     [41, 41, 42, 42, 43, 43, 44, 44],
     [45, 45, 46, 46, 47, 47, 48, 52],
     [53, 53, 54, 57, 58, 58, 59, 59],
     [61, 61, 63, 63, 64, 64, 65, 90],
     [95, 95, 97, 122, 126, 126, 33, 33],
     [35, 35, 36, 36, 37, 37, 38, 38],
     [39, 39, 40, 40, 41, 41, 42, 42],
     [43, 43, 44, 44, 45, 45, 46, 46],
     [47, 47, 48, 53, 54, 57, 58, 58],
     [59, 59, 61, 61, 63, 63, 64, 64],
     [65, 90, 95, 95, 97, 122, 126, 126],
     [9, 9, 13, 13, 32, 32, 33, 33],
     [37, 37, 39, 39, 42, 42, 43, 43],
     [45, 45, 46, 46, 48, 57, 58, 58],
     [60, 60, 65, 90, 95, 95, 96, 96],
     [97, 122, 126, 126, 9, 9, 13, 13],
     [32, 32, 33, 33, 37, 37, 39, 39],
     [42, 42, 43, 43, 45, 45, 46, 46],
     [48, 57, 58, 58, 60, 60, 65, 68],
     [69, 69, 70, 90, 95, 95, 96, 96],
     [97, 100, 101, 101, 102, 122, 126, 126],
     [9, 9, 13, 13, 32, 32, 33, 33],
     [37, 37, 39, 39, 42, 42, 43, 43],
     [45, 45, 46, 46, 48, 57, 58, 58],
     [60, 60, 65, 75, 76, 76, 77, 90],
     [95, 95, 96, 96, 97, 107, 108, 108],
     [109, 122, 126, 126, 9, 9, 13, 13],
     [32, 32, 33, 33, 37, 37, 39, 39],
     [42, 42, 43, 43, 45, 45, 46, 46],
     [48, 57, 58, 58, 60, 60, 65, 90],
     [95, 95, 96, 96, 97, 122, 126, 126],
     [35, 35, 40, 40, 41, 41, 42, 42],
     [43, 43, 45, 45, 46, 46, 48, 57],
     [65, 65, 66, 66, 67, 67, 68, 68],
     [69, 69, 70, 70, 97, 97, 98, 98],
     [99, 99, 100, 100, 101, 101, 102, 102],
     [9, 9, 13, 13, 32, 32, 35, 35],
     [40, 40, 41, 41, 42, 42, 45, 45],
     [46, 46, 48, 57, 59, 59, 65, 65],
     [66, 66, 67, 67, 68, 68, 69, 69],
     [70, 70, 97, 97, 98, 98, 99, 99],
     [100, 100, 101, 101, 102, 102, 9, 9],
     [13, 13, 32, 32, 33, 33, 37, 37],
     [39, 39, 42, 42, 43, 43, 45, 45],
     [46, 46, 48, 57, 65, 79, 80, 80],
     [81, 90, 95, 95, 96, 96, 97, 111]]"

definition sup_cond_keys_88 :: "int list list" where
  "sup_cond_keys_88 =
    [[112, 112, 113, 122, 126, 126, 9, 9],
     [13, 13, 32, 32, 33, 33, 37, 37],
     [39, 39, 42, 42, 43, 43, 45, 45],
     [46, 46, 48, 57, 59, 59, 61, 61],
     [65, 90, 95, 95, 96, 96, 97, 122],
     [126, 126, 9, 9, 13, 13, 32, 32],
     [33, 33, 34, 34, 36, 36, 37, 37],
     [38, 38, 39, 39, 40, 40, 41, 41],
     [42, 42, 43, 43, 45, 45, 46, 46],
     [47, 47, 48, 48, 49, 49, 50, 50],
     [51, 57, 58, 58, 65, 90, 91, 91],
     [93, 93, 95, 95, 96, 96, 97, 122],
     [126, 126, 9, 9, 13, 13, 32, 32],
     [33, 33, 36, 36, 37, 37, 38, 38],
     [39, 39, 40, 40, 41, 41, 42, 42],
     [43, 43, 45, 45, 46, 46, 47, 47],
     [48, 57, 58, 58, 59, 59, 65, 90],
     [91, 91, 93, 93, 95, 95, 96, 96],
     [97, 122, 126, 126, 9, 9, 13, 13],
     [32, 32, 33, 33, 37, 37, 39, 39],
     [42, 42, 43, 43, 45, 45, 46, 46],
     [48, 57, 59, 59, 65, 65, 66, 66],
     [67, 67, 68, 68, 69, 69, 70, 70],
     [71, 90, 95, 95, 96, 96, 97, 97],
     [98, 98, 99, 99, 100, 100, 101, 101],
     [102, 102, 103, 122, 126, 126, 9, 9],
     [13, 13, 32, 32, 33, 33, 37, 37],
     [39, 39, 42, 42, 43, 43, 45, 45],
     [46, 46, 48, 57, 59, 59, 65, 65],
     [66, 66, 67, 67, 68, 68, 69, 69],
     [70, 70, 71, 90, 95, 95, 96, 96],
     [97, 97, 98, 98, 99, 99, 100, 100],
     [101, 101, 102, 102, 103, 122, 126, 126],
     [33, 33, 36, 36, 37, 37, 38, 38],
     [39, 39, 40, 40, 41, 41, 42, 42],
     [43, 43, 45, 45, 46, 46, 47, 47],
     [48, 57, 58, 58, 59, 59, 65, 65],
     [66, 66, 67, 67, 68, 68, 69, 69],
     [70, 70, 71, 90, 91, 91, 93, 93],
     [95, 95, 97, 97, 98, 98, 99, 99],
     [100, 100, 101, 101, 102, 102, 103, 122],
     [126, 126, 33, 33, 36, 36, 37, 37],
     [38, 38, 39, 39, 40, 40, 41, 41],
     [42, 42, 43, 43, 45, 45, 46, 46],
     [47, 47, 48, 57, 58, 58, 59, 59],
     [65, 65, 66, 66, 67, 67, 68, 68],
     [69, 69, 70, 70, 71, 90, 91, 91],
     [93, 93, 95, 95, 97, 97, 98, 98],
     [99, 99, 100, 100, 101, 101, 102, 102],
     [103, 122, 126, 126, 33, 33, 36, 36],
     [37, 37, 38, 38, 39, 39, 40, 40],
     [41, 41, 42, 42, 43, 43, 45, 45],
     [46, 46, 47, 47, 48, 57, 58, 58],
     [59, 59, 65, 65, 66, 66, 67, 67],
     [68, 68, 69, 69, 70, 70, 71, 90],
     [91, 91, 93, 93, 95, 95, 97, 97],
     [98, 98, 99, 99, 100, 100, 101, 101],
     [102, 102, 103, 122, 126, 126, 33, 33],
     [36, 36, 37, 37, 38, 38, 39, 39],
     [40, 40, 41, 41, 42, 42, 43, 43],
     [45, 45, 46, 46, 47, 47, 48, 57],
     [58, 58, 59, 59, 65, 65, 66, 66],
     [67, 67, 68, 68, 69, 69, 70, 70],
     [71, 90, 91, 91, 93, 93, 95, 95],
     [97, 97, 98, 98, 99, 99, 100, 100],
     [101, 101, 102, 102, 103, 122, 126, 126],
     [33, 33, 36, 36, 37, 37, 38, 38],
     [39, 39, 40, 40, 41, 41, 42, 42],
     [43, 43, 45, 45, 46, 46, 47, 47],
     [48, 57, 58, 58, 59, 59, 65, 90],
     [91, 91, 93, 93, 95, 95, 97, 122],
     [126, 126, 33, 33, 36, 36, 37, 37],
     [38, 38, 39, 39, 40, 40, 41, 41],
     [42, 42, 43, 43, 45, 45, 46, 46],
     [47, 47, 48, 57, 58, 58, 59, 59],
     [65, 65, 66, 66, 67, 67, 68, 68],
     [69, 69, 70, 70, 71, 90, 91, 91],
     [93, 93, 95, 95, 97, 97, 98, 98],
     [99, 99, 100, 100, 101, 101, 102, 102],
     [103, 122, 126, 126, 33, 33, 36, 36],
     [37, 37, 38, 38, 39, 39, 40, 40],
     [41, 41, 42, 42, 43, 43, 45, 45],
     [46, 46, 47, 47, 48, 57, 58, 58],
     [59, 59, 65, 65, 66, 66, 67, 67],
     [68, 68, 69, 69, 70, 70, 71, 90],
     [91, 91, 93, 93, 95, 95, 97, 97],
     [98, 98, 99, 99, 100, 100, 101, 101],
     [102, 102, 103, 122, 126, 126, 33, 33],
     [36, 36, 37, 37, 38, 38, 39, 39],
     [40, 40, 41, 41, 42, 42, 43, 43],
     [45, 45, 46, 46, 47, 47, 48, 57],
     [58, 58, 59, 59, 65, 65, 66, 66],
     [67, 67, 68, 68, 69, 69, 70, 70],
     [71, 90, 91, 91, 93, 93, 95, 95],
     [97, 97, 98, 98, 99, 99, 100, 100],
     [101, 101, 102, 102, 103, 122, 126, 126],
     [33, 33, 36, 36, 37, 37, 38, 38],
     [39, 39, 40, 40, 41, 41, 42, 42],
     [43, 43, 45, 45, 46, 46, 47, 47],
     [48, 57, 58, 58, 59, 59, 65, 65],
     [66, 66, 67, 67, 68, 68, 69, 69],
     [70, 70, 71, 90, 91, 91, 93, 93],
     [95, 95, 97, 97, 98, 98, 99, 99],
     [100, 100, 101, 101, 102, 102, 103, 122],
     [126, 126, 33, 33, 36, 36, 37, 37],
     [38, 38, 39, 39, 40, 40, 41, 41],
     [42, 42, 43, 43, 45, 45, 46, 46],
     [47, 47, 48, 57, 58, 58, 59, 59],
     [65, 90, 91, 91, 93, 93, 95, 95],
     [97, 122, 126, 126, 33, 33, 36, 36],
     [37, 37, 38, 38, 39, 39, 40, 40],
     [41, 41, 42, 42, 43, 43, 45, 45],
     [46, 46, 47, 47, 48, 57, 58, 58],
     [59, 59, 65, 65, 66, 66, 67, 67],
     [68, 68, 69, 69, 70, 70, 71, 90],
     [91, 91, 93, 93, 95, 95, 97, 97],
     [98, 98, 99, 99, 100, 100, 101, 101],
     [102, 102, 103, 122, 126, 126, 33, 33],
     [36, 36, 37, 37, 38, 38, 39, 39],
     [40, 40, 41, 41, 42, 42, 43, 43],
     [45, 45, 46, 46, 47, 47, 48, 57],
     [58, 58, 59, 59, 65, 65, 66, 66],
     [67, 67, 68, 68, 69, 69, 70, 70],
     [71, 90, 91, 91, 93, 93, 95, 95],
     [97, 97, 98, 98, 99, 99, 100, 100],
     [101, 101, 102, 102, 103, 122, 126, 126],
     [33, 33, 36, 36, 37, 37, 38, 38],
     [39, 39, 40, 40, 41, 41, 42, 42],
     [43, 43, 45, 45, 46, 46, 47, 47],
     [48, 57, 58, 58, 59, 59, 65, 65],
     [66, 66, 67, 67, 68, 68, 69, 69],
     [70, 70, 71, 90, 91, 91, 93, 93],
     [95, 95, 97, 97, 98, 98, 99, 99],
     [100, 100, 101, 101, 102, 102, 103, 122],
     [126, 126, 33, 33, 36, 36, 37, 37],
     [38, 38, 39, 39, 40, 40, 41, 41],
     [42, 42, 43, 43, 45, 45, 46, 46],
     [47, 47, 48, 57, 58, 58, 59, 59],
     [65, 65, 66, 66, 67, 67, 68, 68],
     [69, 69, 70, 70, 71, 90, 91, 91],
     [93, 93, 95, 95, 97, 97, 98, 98],
     [99, 99, 100, 100, 101, 101, 102, 102],
     [103, 122, 126, 126, 33, 33, 36, 36],
     [37, 37, 38, 38, 39, 39, 40, 40],
     [41, 41, 42, 42, 43, 43, 45, 45],
     [46, 46, 47, 47, 48, 57, 58, 58],
     [59, 59, 65, 90, 91, 91, 93, 93],
     [95, 95, 97, 122, 126, 126, 33, 33],
     [36, 36, 37, 37, 38, 38, 39, 39],
     [40, 40, 41, 41, 42, 42, 43, 43]]"

definition sup_cond_keys_89 :: "int list list" where
  "sup_cond_keys_89 =
    [[45, 45, 46, 46, 47, 47, 48, 57],
     [58, 58, 59, 59, 65, 65, 66, 66],
     [67, 67, 68, 68, 69, 69, 70, 70],
     [71, 90, 91, 91, 93, 93, 95, 95],
     [97, 97, 98, 98, 99, 99, 100, 100],
     [101, 101, 102, 102, 103, 122, 126, 126],
     [33, 33, 36, 36, 37, 37, 38, 38],
     [39, 39, 40, 40, 41, 41, 42, 42],
     [43, 43, 45, 45, 46, 46, 47, 47],
     [48, 57, 58, 58, 59, 59, 65, 65],
     [66, 66, 67, 67, 68, 68, 69, 69],
     [70, 70, 71, 90, 91, 91, 93, 93],
     [95, 95, 97, 97, 98, 98, 99, 99],
     [100, 100, 101, 101, 102, 102, 103, 122],
     [126, 126, 33, 33, 36, 36, 37, 37],
     [38, 38, 39, 39, 40, 40, 41, 41],
     [42, 42, 43, 43, 45, 45, 46, 46],
     [47, 47, 48, 57, 58, 58, 59, 59],
     [65, 65, 66, 66, 67, 67, 68, 68],
     [69, 69, 70, 70, 71, 90, 91, 91],
     [93, 93, 95, 95, 97, 97, 98, 98],
     [99, 99, 100, 100, 101, 101, 102, 102],
     [103, 122, 126, 126, 33, 33, 36, 36],
     [37, 37, 38, 38, 39, 39, 40, 40],
     [41, 41, 42, 42, 43, 43, 45, 45],
     [46, 46, 47, 47, 48, 57, 58, 58],
     [59, 59, 65, 65, 66, 66, 67, 67],
     [68, 68, 69, 69, 70, 70, 71, 90],
     [91, 91, 93, 93, 95, 95, 97, 97],
     [98, 98, 99, 99, 100, 100, 101, 101],
     [102, 102, 103, 122, 126, 126, 33, 33],
     [36, 36, 37, 37, 38, 38, 39, 39],
     [40, 40, 41, 41, 42, 42, 43, 43],
     [45, 45, 46, 46, 47, 47, 48, 57],
     [58, 58, 59, 59, 65, 90, 91, 91],
     [93, 93, 95, 95, 97, 122, 126, 126],
     [33, 33, 36, 36, 37, 37, 38, 38],
     [39, 39, 40, 40, 41, 41, 42, 42],
     [43, 43, 45, 45, 46, 46, 47, 47],
     [48, 57, 58, 58, 59, 59, 65, 65],
     [66, 66, 67, 67, 68, 68, 69, 69],
     [70, 70, 71, 90, 91, 91, 93, 93],
     [95, 95, 97, 97, 98, 98, 99, 99],
     [100, 100, 101, 101, 102, 102, 103, 122],
     [126, 126, 33, 33, 36, 36, 37, 37],
     [38, 38, 39, 39, 40, 40, 41, 41],
     [42, 42, 43, 43, 45, 45, 46, 46],
     [47, 47, 48, 57, 58, 58, 59, 59],
     [65, 65, 66, 66, 67, 67, 68, 68],
     [69, 69, 70, 70, 71, 90, 91, 91],
     [93, 93, 95, 95, 97, 97, 98, 98],
     [99, 99, 100, 100, 101, 101, 102, 102],
     [103, 122, 126, 126, 33, 33, 36, 36],
     [37, 37, 38, 38, 39, 39, 40, 40],
     [41, 41, 42, 42, 43, 43, 45, 45],
     [46, 46, 47, 47, 48, 57, 58, 58],
     [59, 59, 65, 65, 66, 66, 67, 67],
     [68, 68, 69, 69, 70, 70, 71, 90],
     [91, 91, 93, 93, 95, 95, 97, 97],
     [98, 98, 99, 99, 100, 100, 101, 101],
     [102, 102, 103, 122, 126, 126, 33, 33],
     [36, 36, 37, 37, 38, 38, 39, 39],
     [40, 40, 41, 41, 42, 42, 43, 43],
     [45, 45, 46, 46, 47, 47, 48, 57],
     [58, 58, 59, 59, 65, 65, 66, 66],
     [67, 67, 68, 68, 69, 69, 70, 70],
     [71, 90, 91, 91, 93, 93, 95, 95],
     [97, 97, 98, 98, 99, 99, 100, 100],
     [101, 101, 102, 102, 103, 122, 126, 126],
     [33, 33, 36, 36, 37, 37, 38, 38],
     [39, 39, 40, 40, 41, 41, 42, 42],
     [43, 43, 45, 45, 46, 46, 47, 47],
     [48, 57, 58, 58, 59, 59, 65, 90],
     [91, 91, 93, 93, 95, 95, 97, 122],
     [126, 126, 33, 33, 36, 36, 37, 37],
     [38, 38, 39, 39, 40, 40, 41, 41],
     [42, 42, 43, 43, 45, 45, 46, 46],
     [47, 47, 48, 57, 58, 58, 59, 59],
     [65, 65, 66, 66, 67, 67, 68, 68],
     [69, 69, 70, 70, 71, 90, 91, 91],
     [93, 93, 95, 95, 97, 97, 98, 98],
     [99, 99, 100, 100, 101, 101, 102, 102],
     [103, 122, 126, 126, 33, 33, 36, 36],
     [37, 37, 38, 38, 39, 39, 40, 40],
     [41, 41, 42, 42, 43, 43, 45, 45],
     [46, 46, 47, 47, 48, 57, 58, 58],
     [59, 59, 65, 65, 66, 66, 67, 67],
     [68, 68, 69, 69, 70, 70, 71, 90],
     [91, 91, 93, 93, 95, 95, 97, 97],
     [98, 98, 99, 99, 100, 100, 101, 101],
     [102, 102, 103, 122, 126, 126, 33, 33],
     [36, 36, 37, 37, 38, 38, 39, 39],
     [40, 40, 41, 41, 42, 42, 43, 43],
     [45, 45, 46, 46, 47, 47, 48, 57],
     [58, 58, 59, 59, 65, 65, 66, 66],
     [67, 67, 68, 68, 69, 69, 70, 70],
     [71, 90, 91, 91, 93, 93, 95, 95],
     [97, 97, 98, 98, 99, 99, 100, 100],
     [101, 101, 102, 102, 103, 122, 126, 126],
     [33, 33, 36, 36, 37, 37, 38, 38],
     [39, 39, 40, 40, 41, 41, 42, 42],
     [43, 43, 45, 45, 46, 46, 47, 47],
     [48, 57, 58, 58, 59, 59, 65, 65],
     [66, 66, 67, 67, 68, 68, 69, 69],
     [70, 70, 71, 90, 91, 91, 93, 93],
     [95, 95, 97, 97, 98, 98, 99, 99],
     [100, 100, 101, 101, 102, 102, 103, 122],
     [126, 126, 33, 33, 36, 36, 37, 37],
     [38, 38, 39, 39, 40, 40, 41, 41],
     [42, 42, 43, 43, 45, 45, 46, 46],
     [47, 47, 48, 57, 58, 58, 59, 59],
     [65, 90, 91, 91, 93, 93, 95, 95],
     [97, 122, 126, 126, 33, 33, 36, 36],
     [37, 37, 38, 38, 39, 39, 40, 40],
     [41, 41, 42, 42, 43, 43, 45, 45],
     [46, 46, 47, 47, 48, 48, 49, 49],
     [50, 50, 51, 57, 58, 58, 59, 59],
     [65, 65, 66, 66, 67, 67, 68, 68],
     [69, 69, 70, 70, 71, 90, 91, 91],
     [93, 93, 95, 95, 97, 97, 98, 98],
     [99, 99, 100, 100, 101, 101, 102, 102],
     [103, 122, 126, 126, 33, 33, 36, 36],
     [37, 37, 38, 38, 39, 39, 40, 40],
     [41, 41, 42, 42, 43, 43, 45, 45],
     [46, 46, 47, 47, 48, 57, 58, 58],
     [59, 59, 65, 65, 66, 66, 67, 67],
     [68, 68, 69, 69, 70, 70, 71, 90],
     [91, 91, 93, 93, 95, 95, 97, 97],
     [98, 98, 99, 99, 100, 100, 101, 101],
     [102, 102, 103, 122, 126, 126, 33, 33],
     [36, 36, 37, 37, 38, 38, 39, 39],
     [40, 40, 41, 41, 42, 42, 43, 43],
     [45, 45, 46, 46, 47, 47, 48, 48],
     [49, 49, 50, 50, 51, 57, 58, 58],
     [59, 59, 65, 90, 91, 91, 93, 93],
     [95, 95, 97, 122, 126, 126, 33, 33],
     [36, 36, 37, 37, 38, 38, 39, 39],
     [40, 40, 41, 41, 42, 42, 43, 43],
     [45, 45, 46, 46, 47, 47, 48, 57],
     [58, 58, 59, 59, 65, 90, 91, 91],
     [93, 93, 95, 95, 97, 122, 126, 126],
     [33, 33, 36, 36, 37, 37, 38, 38],
     [39, 39, 40, 40, 41, 41, 42, 42],
     [43, 43, 45, 45, 46, 46, 47, 47],
     [48, 48, 49, 49, 50, 50, 51, 57],
     [58, 58, 59, 59, 65, 90, 91, 91],
     [93, 93, 95, 95, 97, 122, 126, 126],
     [33, 33, 36, 36, 37, 37, 38, 38],
     [39, 39, 40, 40, 41, 41, 42, 42],
     [43, 43, 45, 45, 46, 46, 47, 47]]"

definition sup_cond_keys_90 :: "int list list" where
  "sup_cond_keys_90 =
    [[48, 57, 58, 58, 59, 59, 65, 90],
     [91, 91, 93, 93, 95, 95, 97, 122],
     [126, 126, 33, 33, 36, 36, 37, 37],
     [38, 38, 39, 39, 40, 40, 41, 41],
     [42, 42, 43, 43, 45, 45, 46, 46],
     [47, 47, 48, 48, 49, 49, 50, 50],
     [51, 57, 58, 58, 59, 59, 65, 90],
     [91, 91, 93, 93, 95, 95, 97, 122],
     [126, 126, 33, 33, 36, 36, 37, 37],
     [38, 38, 39, 39, 40, 40, 41, 41],
     [42, 42, 43, 43, 45, 45, 46, 46],
     [47, 47, 48, 57, 58, 58, 59, 59],
     [65, 90, 91, 91, 93, 93, 95, 95],
     [97, 122, 126, 126, 9, 9, 13, 13],
     [32, 32, 33, 33, 36, 36, 37, 37],
     [38, 38, 39, 39, 40, 40, 41, 41],
     [42, 42, 43, 43, 45, 45, 46, 46],
     [47, 47, 48, 57, 58, 58, 59, 59],
     [65, 90, 91, 91, 93, 93, 95, 95],
     [97, 122, 126, 126, 33, 33, 36, 36],
     [37, 37, 38, 38, 39, 39, 40, 40],
     [41, 41, 42, 42, 43, 43, 45, 45],
     [46, 46, 47, 47, 48, 57, 58, 58],
     [59, 59, 65, 90, 91, 91, 93, 93],
     [95, 95, 97, 122, 126, 126, 33, 33],
     [36, 36, 37, 37, 38, 38, 39, 39],
     [40, 40, 41, 41, 42, 42, 43, 43],
     [45, 45, 46, 46, 47, 47, 48, 57],
     [58, 58, 59, 59, 65, 90, 91, 91],
     [93, 93, 95, 95, 97, 122, 126, 126],
     [33, 33, 36, 36, 37, 37, 38, 38],
     [39, 39, 40, 40, 41, 41, 42, 42],
     [43, 43, 45, 45, 46, 46, 47, 47],
     [48, 52, 53, 53, 54, 57, 58, 58],
     [59, 59, 65, 90, 91, 91, 93, 93],
     [95, 95, 97, 122, 126, 126, 33, 33],
     [36, 36, 37, 37, 38, 38, 39, 39],
     [40, 40, 41, 41, 42, 42, 43, 43],
     [45, 45, 46, 46, 47, 47, 48, 53],
     [54, 57, 58, 58, 59, 59, 65, 90],
     [91, 91, 93, 93, 95, 95, 97, 122],
     [126, 126, 33, 33, 36, 36, 37, 37],
     [38, 38, 39, 39, 40, 40, 41, 41],
     [42, 42, 43, 43, 45, 45, 46, 46],
     [47, 47, 48, 57, 58, 58, 59, 59],
     [65, 90, 91, 91, 93, 93, 95, 95],
     [97, 122, 126, 126, 33, 33, 36, 36],
     [37, 37, 38, 38, 39, 39, 40, 40],
     [41, 41, 42, 42, 43, 43, 45, 45],
     [46, 46, 47, 47, 48, 57, 58, 58],
     [59, 59, 65, 90, 91, 91, 93, 93],
     [95, 95, 97, 122, 126, 126, 33, 33],
     [36, 36, 37, 37, 38, 38, 39, 39],
     [40, 40, 41, 41, 42, 42, 43, 43],
     [45, 45, 46, 46, 47, 47, 48, 52],
     [53, 53, 54, 57, 58, 58, 59, 59],
     [65, 90, 91, 91, 93, 93, 95, 95],
     [97, 122, 126, 126, 33, 33, 36, 36],
     [37, 37, 38, 38, 39, 39, 40, 40],
     [41, 41, 42, 42, 43, 43, 45, 45],
     [46, 46, 47, 47, 48, 53, 54, 57],
     [58, 58, 59, 59, 65, 90, 91, 91],
     [93, 93, 95, 95, 97, 122, 126, 126],
     [33, 33, 36, 36, 37, 37, 38, 38],
     [39, 39, 40, 40, 41, 41, 42, 42],
     [43, 43, 45, 45, 46, 46, 47, 47],
     [48, 57, 58, 58, 59, 59, 65, 90],
     [91, 91, 93, 93, 95, 95, 97, 122],
     [126, 126, 33, 33, 36, 36, 37, 37],
     [38, 38, 39, 39, 40, 40, 41, 41],
     [42, 42, 43, 43, 45, 45, 46, 46],
     [47, 47, 48, 57, 58, 58, 59, 59],
     [65, 90, 91, 91, 93, 93, 95, 95],
     [97, 122, 126, 126, 33, 33, 36, 36],
     [37, 37, 38, 38, 39, 39, 40, 40],
     [41, 41, 42, 42, 43, 43, 45, 45],
     [46, 46, 47, 47, 48, 52, 53, 53],
     [54, 57, 58, 58, 59, 59, 65, 90],
     [91, 91, 93, 93, 95, 95, 97, 122],
     [126, 126, 33, 33, 36, 36, 37, 37],
     [38, 38, 39, 39, 40, 40, 41, 41],
     [42, 42, 43, 43, 45, 45, 46, 46],
     [47, 47, 48, 53, 54, 57, 58, 58],
     [59, 59, 65, 90, 91, 91, 93, 93],
     [95, 95, 97, 122, 126, 126, 33, 33],
     [36, 36, 37, 37, 38, 38, 39, 39],
     [40, 40, 41, 41, 42, 42, 43, 43],
     [45, 45, 46, 46, 47, 47, 48, 57],
     [58, 58, 59, 59, 65, 65, 66, 66],
     [67, 67, 68, 68, 69, 69, 70, 70],
     [71, 90, 91, 91, 93, 93, 95, 95],
     [97, 97, 98, 98, 99, 99, 100, 100],
     [101, 101, 102, 102, 103, 122, 126, 126],
     [33, 33, 36, 36, 37, 37, 38, 38],
     [39, 39, 40, 40, 41, 41, 42, 42],
     [43, 43, 45, 45, 46, 46, 47, 47],
     [48, 57, 58, 58, 59, 59, 65, 65],
     [66, 66, 67, 67, 68, 68, 69, 69],
     [70, 70, 71, 90, 91, 91, 93, 93],
     [95, 95, 97, 97, 98, 98, 99, 99],
     [100, 100, 101, 101, 102, 102, 103, 122],
     [126, 126, 33, 33, 36, 36, 37, 37],
     [38, 38, 39, 39, 40, 40, 41, 41],
     [42, 42, 43, 43, 45, 45, 46, 46],
     [47, 47, 48, 57, 58, 58, 59, 59],
     [65, 90, 91, 91, 93, 93, 95, 95],
     [97, 122, 126, 126, 33, 33, 36, 36],
     [37, 37, 38, 38, 39, 39, 40, 40],
     [41, 41, 42, 42, 43, 43, 45, 45],
     [46, 46, 47, 47, 48, 57, 58, 58],
     [59, 59, 65, 65, 66, 66, 67, 67],
     [68, 68, 69, 69, 70, 70, 71, 90],
     [91, 91, 93, 93, 95, 95, 97, 97],
     [98, 98, 99, 99, 100, 100, 101, 101],
     [102, 102, 103, 122, 126, 126, 33, 33],
     [36, 36, 37, 37, 38, 38, 39, 39],
     [40, 40, 41, 41, 42, 42, 43, 43],
     [45, 45, 46, 46, 47, 47, 48, 57],
     [58, 58, 59, 59, 65, 65, 66, 66],
     [67, 67, 68, 68, 69, 69, 70, 70],
     [71, 90, 91, 91, 93, 93, 95, 95],
     [97, 97, 98, 98, 99, 99, 100, 100],
     [101, 101, 102, 102, 103, 122, 126, 126],
     [33, 33, 36, 36, 37, 37, 38, 38],
     [39, 39, 40, 40, 41, 41, 42, 42],
     [43, 43, 45, 45, 46, 46, 47, 47],
     [48, 57, 58, 58, 59, 59, 65, 65],
     [66, 66, 67, 67, 68, 68, 69, 69],
     [70, 70, 71, 90, 91, 91, 93, 93],
     [95, 95, 97, 97, 98, 98, 99, 99],
     [100, 100, 101, 101, 102, 102, 103, 122],
     [126, 126, 33, 33, 36, 36, 37, 37],
     [38, 38, 39, 39, 40, 40, 41, 41],
     [42, 42, 43, 43, 45, 45, 46, 46],
     [47, 47, 48, 57, 58, 58, 59, 59],
     [65, 65, 66, 66, 67, 67, 68, 68],
     [69, 69, 70, 70, 71, 90, 91, 91],
     [93, 93, 95, 95, 97, 97, 98, 98],
     [99, 99, 100, 100, 101, 101, 102, 102],
     [103, 122, 126, 126, 33, 33, 36, 36],
     [37, 37, 38, 38, 39, 39, 40, 40],
     [41, 41, 42, 42, 43, 43, 45, 45],
     [46, 46, 47, 47, 48, 57, 58, 58],
     [59, 59, 65, 65, 66, 66, 67, 67],
     [68, 68, 69, 69, 70, 70, 71, 90],
     [91, 91, 93, 93, 95, 95, 97, 97],
     [98, 98, 99, 99, 100, 100, 101, 101],
     [102, 102, 103, 122, 126, 126, 33, 33],
     [36, 36, 37, 37, 38, 38, 39, 39],
     [40, 40, 41, 41, 42, 42, 43, 43]]"

definition sup_cond_keys_91 :: "int list list" where
  "sup_cond_keys_91 =
    [[45, 45, 46, 46, 47, 47, 48, 57],
     [58, 58, 59, 59, 65, 65, 66, 66],
     [67, 67, 68, 68, 69, 69, 70, 70],
     [71, 90, 91, 91, 93, 93, 95, 95],
     [97, 97, 98, 98, 99, 99, 100, 100],
     [101, 101, 102, 102, 103, 122, 126, 126],
     [33, 33, 36, 36, 37, 37, 38, 38],
     [39, 39, 40, 40, 41, 41, 42, 42],
     [43, 43, 45, 45, 46, 46, 47, 47],
     [48, 57, 58, 58, 59, 59, 65, 65],
     [66, 66, 67, 67, 68, 68, 69, 69],
     [70, 70, 71, 90, 91, 91, 93, 93],
     [95, 95, 97, 97, 98, 98, 99, 99],
     [100, 100, 101, 101, 102, 102, 103, 122],
     [126, 126, 33, 33, 36, 36, 37, 37],
     [38, 38, 39, 39, 40, 40, 41, 41],
     [42, 42, 43, 43, 45, 45, 46, 46],
     [47, 47, 48, 52, 53, 53, 54, 57],
     [58, 58, 59, 59, 65, 65, 66, 66],
     [67, 67, 68, 68, 69, 69, 70, 70],
     [71, 90, 91, 91, 93, 93, 95, 95],
     [97, 97, 98, 98, 99, 99, 100, 100],
     [101, 101, 102, 102, 103, 122, 126, 126],
     [33, 33, 36, 36, 37, 37, 38, 38],
     [39, 39, 40, 40, 41, 41, 42, 42],
     [43, 43, 45, 45, 46, 46, 47, 47],
     [48, 53, 54, 57, 58, 58, 59, 59],
     [65, 65, 66, 66, 67, 67, 68, 68],
     [69, 69, 70, 70, 71, 90, 91, 91],
     [93, 93, 95, 95, 97, 97, 98, 98],
     [99, 99, 100, 100, 101, 101, 102, 102],
     [103, 122, 126, 126, 33, 33, 36, 36],
     [37, 37, 38, 38, 39, 39, 40, 40],
     [41, 41, 42, 42, 43, 43, 45, 45],
     [46, 46, 47, 47, 48, 57, 58, 58],
     [59, 59, 65, 65, 66, 66, 67, 67],
     [68, 68, 69, 69, 70, 70, 71, 90],
     [91, 91, 93, 93, 95, 95, 97, 97],
     [98, 98, 99, 99, 100, 100, 101, 101],
     [102, 102, 103, 122, 126, 126, 33, 33],
     [36, 36, 37, 37, 38, 38, 39, 39],
     [40, 40, 41, 41, 42, 42, 43, 43],
     [45, 45, 46, 46, 47, 47, 48, 57],
     [58, 58, 59, 59, 65, 65, 66, 66],
     [67, 67, 68, 68, 69, 69, 70, 70],
     [71, 90, 91, 91, 93, 93, 95, 95],
     [97, 97, 98, 98, 99, 99, 100, 100],
     [101, 101, 102, 102, 103, 122, 126, 126],
     [33, 33, 36, 36, 37, 37, 38, 38],
     [39, 39, 40, 40, 41, 41, 42, 42],
     [43, 43, 45, 45, 46, 46, 47, 47],
     [48, 57, 58, 58, 59, 59, 65, 65],
     [66, 66, 67, 67, 68, 68, 69, 69],
     [70, 70, 71, 90, 91, 91, 93, 93],
     [95, 95, 97, 97, 98, 98, 99, 99],
     [100, 100, 101, 101, 102, 102, 103, 122],
     [126, 126, 33, 33, 36, 36, 37, 37],
     [38, 38, 39, 39, 40, 40, 41, 41],
     [42, 42, 43, 43, 45, 45, 46, 46],
     [47, 47, 48, 57, 58, 58, 59, 59],
     [65, 65, 66, 66, 67, 67, 68, 68],
     [69, 69, 70, 70, 71, 90, 91, 91],
     [93, 93, 95, 95, 97, 97, 98, 98],
     [99, 99, 100, 100, 101, 101, 102, 102],
     [103, 122, 126, 126, 33, 33, 36, 36],
     [37, 37, 38, 38, 39, 39, 40, 40],
     [41, 41, 42, 42, 43, 43, 45, 45],
     [46, 46, 47, 47, 48, 48, 49, 49],
     [50, 50, 51, 57, 58, 58, 59, 59],
     [65, 65, 66, 66, 67, 67, 68, 68],
     [69, 69, 70, 70, 71, 90, 91, 91],
     [93, 93, 95, 95, 97, 97, 98, 98],
     [99, 99, 100, 100, 101, 101, 102, 102],
     [103, 122, 126, 126, 33, 33, 36, 36],
     [37, 37, 38, 38, 39, 39, 40, 40],
     [41, 41, 42, 42, 43, 43, 45, 45],
     [46, 46, 47, 47, 48, 57, 58, 58],
     [59, 59, 65, 65, 66, 66, 67, 67],
     [68, 68, 69, 69, 70, 70, 71, 90],
     [91, 91, 93, 93, 95, 95, 97, 97],
     [98, 98, 99, 99, 100, 100, 101, 101],
     [102, 102, 103, 122, 126, 126, 33, 33],
     [36, 36, 37, 37, 38, 38, 39, 39],
     [40, 40, 41, 41, 42, 42, 43, 43],
     [45, 45, 46, 46, 47, 47, 48, 57],
     [58, 58, 59, 59, 65, 65, 66, 66],
     [67, 67, 68, 68, 69, 69, 70, 70],
     [71, 90, 91, 91, 93, 93, 95, 95],
     [97, 97, 98, 98, 99, 99, 100, 100],
     [101, 101, 102, 102, 103, 122, 126, 126],
     [33, 33, 36, 36, 37, 37, 38, 38],
     [39, 39, 40, 40, 41, 41, 42, 42],
     [43, 43, 45, 45, 46, 46, 47, 47],
     [48, 57, 58, 58, 59, 59, 65, 65],
     [66, 66, 67, 67, 68, 68, 69, 69],
     [70, 70, 71, 90, 91, 91, 93, 93],
     [95, 95, 97, 97, 98, 98, 99, 99],
     [100, 100, 101, 101, 102, 102, 103, 122],
     [126, 126, 33, 33, 36, 36, 37, 37],
     [38, 38, 39, 39, 40, 40, 41, 41],
     [42, 42, 43, 43, 45, 45, 46, 46],
     [47, 47, 48, 57, 58, 58, 59, 59],
     [65, 90, 91, 91, 93, 93, 95, 95],
     [97, 122, 126, 126, 33, 33, 36, 36],
     [37, 37, 38, 38, 39, 39, 40, 40],
     [41, 41, 42, 42, 43, 43, 45, 45],
     [46, 46, 47, 47, 48, 57, 58, 58],
     [59, 59, 65, 65, 66, 66, 67, 67],
     [68, 68, 69, 69, 70, 70, 71, 90],
     [91, 91, 93, 93, 95, 95, 97, 97],
     [98, 98, 99, 99, 100, 100, 101, 101],
     [102, 102, 103, 122, 126, 126, 33, 33],
     [36, 36, 37, 37, 38, 38, 39, 39],
     [40, 40, 41, 41, 42, 42, 43, 43],
     [45, 45, 46, 46, 47, 47, 48, 57],
     [58, 58, 59, 59, 65, 65, 66, 66],
     [67, 67, 68, 68, 69, 69, 70, 70],
     [71, 90, 91, 91, 93, 93, 95, 95],
     [97, 97, 98, 98, 99, 99, 100, 100],
     [101, 101, 102, 102, 103, 122, 126, 126],
     [33, 33, 36, 36, 37, 37, 38, 38],
     [39, 39, 40, 40, 41, 41, 42, 42],
     [43, 43, 45, 45, 46, 46, 47, 47],
     [48, 57, 58, 58, 59, 59, 65, 65],
     [66, 66, 67, 67, 68, 68, 69, 69],
     [70, 70, 71, 90, 91, 91, 93, 93],
     [95, 95, 97, 97, 98, 98, 99, 99],
     [100, 100, 101, 101, 102, 102, 103, 122],
     [126, 126, 33, 33, 36, 36, 37, 37],
     [38, 38, 39, 39, 40, 40, 41, 41],
     [42, 42, 43, 43, 45, 45, 46, 46],
     [47, 47, 48, 57, 58, 58, 59, 59],
     [65, 65, 66, 66, 67, 67, 68, 68],
     [69, 69, 70, 70, 71, 90, 91, 91],
     [93, 93, 95, 95, 97, 97, 98, 98],
     [99, 99, 100, 100, 101, 101, 102, 102],
     [103, 122, 126, 126, 33, 33, 36, 36],
     [37, 37, 38, 38, 39, 39, 40, 40],
     [41, 41, 42, 42, 43, 43, 45, 45],
     [46, 46, 47, 47, 48, 52, 53, 53],
     [54, 57, 58, 58, 59, 59, 65, 65],
     [66, 66, 67, 67, 68, 68, 69, 69],
     [70, 70, 71, 90, 91, 91, 93, 93],
     [95, 95, 97, 97, 98, 98, 99, 99],
     [100, 100, 101, 101, 102, 102, 103, 122],
     [126, 126, 33, 33, 36, 36, 37, 37],
     [38, 38, 39, 39, 40, 40, 41, 41],
     [42, 42, 43, 43, 45, 45, 46, 46],
     [47, 47, 48, 53, 54, 57, 58, 58],
     [59, 59, 65, 65, 66, 66, 67, 67]]"

definition sup_cond_keys_92 :: "int list list" where
  "sup_cond_keys_92 =
    [[68, 68, 69, 69, 70, 70, 71, 90],
     [91, 91, 93, 93, 95, 95, 97, 97],
     [98, 98, 99, 99, 100, 100, 101, 101],
     [102, 102, 103, 122, 126, 126, 33, 33],
     [36, 36, 37, 37, 38, 38, 39, 39],
     [40, 40, 41, 41, 42, 42, 43, 43],
     [45, 45, 46, 46, 47, 47, 48, 57],
     [58, 58, 59, 59, 65, 65, 66, 66],
     [67, 67, 68, 68, 69, 69, 70, 70],
     [71, 90, 91, 91, 93, 93, 95, 95],
     [97, 97, 98, 98, 99, 99, 100, 100],
     [101, 101, 102, 102, 103, 122, 126, 126],
     [33, 33, 36, 36, 37, 37, 38, 38],
     [39, 39, 40, 40, 41, 41, 42, 42],
     [43, 43, 45, 45, 46, 46, 47, 47],
     [48, 57, 58, 58, 59, 59, 65, 65],
     [66, 66, 67, 67, 68, 68, 69, 69],
     [70, 70, 71, 90, 91, 91, 93, 93],
     [95, 95, 97, 97, 98, 98, 99, 99],
     [100, 100, 101, 101, 102, 102, 103, 122],
     [126, 126, 33, 33, 36, 36, 37, 37],
     [38, 38, 39, 39, 40, 40, 41, 41],
     [42, 42, 43, 43, 45, 45, 46, 46],
     [47, 47, 48, 57, 58, 58, 59, 59],
     [65, 65, 66, 66, 67, 67, 68, 68],
     [69, 69, 70, 70, 71, 90, 91, 91],
     [93, 93, 95, 95, 97, 97, 98, 98],
     [99, 99, 100, 100, 101, 101, 102, 102],
     [103, 122, 126, 126, 33, 33, 36, 36],
     [37, 37, 38, 38, 39, 39, 40, 40],
     [41, 41, 42, 42, 43, 43, 45, 45],
     [46, 46, 47, 47, 48, 48, 49, 49],
     [50, 50, 51, 57, 58, 58, 59, 59],
     [65, 65, 66, 66, 67, 67, 68, 68],
     [69, 69, 70, 70, 71, 90, 91, 91],
     [93, 93, 95, 95, 97, 97, 98, 98],
     [99, 99, 100, 100, 101, 101, 102, 102],
     [103, 122, 126, 126, 33, 33, 36, 36],
     [37, 37, 38, 38, 39, 39, 40, 40],
     [41, 41, 42, 42, 43, 43, 45, 45],
     [46, 46, 47, 47, 48, 57, 58, 58],
     [59, 59, 65, 65, 66, 66, 67, 67],
     [68, 68, 69, 69, 70, 70, 71, 90],
     [91, 91, 93, 93, 95, 95, 97, 97],
     [98, 98, 99, 99, 100, 100, 101, 101],
     [102, 102, 103, 122, 126, 126, 33, 33],
     [36, 36, 37, 37, 38, 38, 39, 39],
     [40, 40, 41, 41, 42, 42, 43, 43],
     [45, 45, 46, 46, 47, 47, 48, 57],
     [58, 58, 59, 59, 65, 65, 66, 66],
     [67, 67, 68, 68, 69, 69, 70, 70],
     [71, 90, 91, 91, 93, 93, 95, 95],
     [97, 97, 98, 98, 99, 99, 100, 100],
     [101, 101, 102, 102, 103, 122, 126, 126],
     [33, 33, 36, 36, 37, 37, 38, 38],
     [39, 39, 40, 40, 41, 41, 42, 42],
     [43, 43, 45, 45, 46, 46, 47, 47],
     [48, 57, 58, 58, 59, 59, 65, 65],
     [66, 66, 67, 67, 68, 68, 69, 69],
     [70, 70, 71, 90, 91, 91, 93, 93],
     [95, 95, 97, 97, 98, 98, 99, 99],
     [100, 100, 101, 101, 102, 102, 103, 122],
     [126, 126, 33, 33, 36, 36, 37, 37],
     [38, 38, 39, 39, 40, 40, 41, 41],
     [42, 42, 43, 43, 45, 45, 46, 46],
     [47, 47, 48, 57, 58, 58, 59, 59],
     [65, 90, 91, 91, 93, 93, 95, 95],
     [97, 122, 126, 126, 33, 33, 36, 36],
     [37, 37, 38, 38, 39, 39, 40, 40],
     [41, 41, 42, 42, 43, 43, 45, 45],
     [46, 46, 47, 47, 48, 48, 49, 49],
     [50, 50, 51, 57, 58, 58, 59, 59],
     [65, 65, 66, 66, 67, 67, 68, 68],
     [69, 69, 70, 70, 71, 90, 91, 91],
     [93, 93, 95, 95, 97, 97, 98, 98],
     [99, 99, 100, 100, 101, 101, 102, 102],
     [103, 122, 126, 126, 33, 33, 36, 36],
     [37, 37, 38, 38, 39, 39, 40, 40],
     [41, 41, 42, 42, 43, 43, 45, 45],
     [46, 46, 47, 47, 48, 57, 58, 58],
     [59, 59, 65, 65, 66, 66, 67, 67],
     [68, 68, 69, 69, 70, 70, 71, 90],
     [91, 91, 93, 93, 95, 95, 97, 97],
     [98, 98, 99, 99, 100, 100, 101, 101],
     [102, 102, 103, 122, 126, 126, 33, 33],
     [36, 36, 37, 37, 38, 38, 39, 39],
     [40, 40, 41, 41, 42, 42, 43, 43],
     [45, 45, 46, 46, 47, 47, 48, 57],
     [58, 58, 59, 59, 65, 65, 66, 66],
     [67, 67, 68, 68, 69, 69, 70, 70],
     [71, 90, 91, 91, 93, 93, 95, 95],
     [97, 97, 98, 98, 99, 99, 100, 100],
     [101, 101, 102, 102, 103, 122, 126, 126],
     [33, 33, 36, 36, 37, 37, 38, 38],
     [39, 39, 40, 40, 41, 41, 42, 42],
     [43, 43, 45, 45, 46, 46, 47, 47],
     [48, 57, 58, 58, 59, 59, 65, 65],
     [66, 66, 67, 67, 68, 68, 69, 69],
     [70, 70, 71, 90, 91, 91, 93, 93],
     [95, 95, 97, 97, 98, 98, 99, 99],
     [100, 100, 101, 101, 102, 102, 103, 122],
     [126, 126, 33, 33, 36, 36, 37, 37],
     [38, 38, 39, 39, 40, 40, 41, 41],
     [42, 42, 43, 43, 45, 45, 46, 46],
     [47, 47, 48, 52, 53, 53, 54, 57],
     [58, 58, 59, 59, 65, 65, 66, 66],
     [67, 67, 68, 68, 69, 69, 70, 70],
     [71, 90, 91, 91, 93, 93, 95, 95],
     [97, 97, 98, 98, 99, 99, 100, 100],
     [101, 101, 102, 102, 103, 122, 126, 126],
     [33, 33, 36, 36, 37, 37, 38, 38],
     [39, 39, 40, 40, 41, 41, 42, 42],
     [43, 43, 45, 45, 46, 46, 47, 47],
     [48, 53, 54, 57, 58, 58, 59, 59],
     [65, 65, 66, 66, 67, 67, 68, 68],
     [69, 69, 70, 70, 71, 90, 91, 91],
     [93, 93, 95, 95, 97, 97, 98, 98],
     [99, 99, 100, 100, 101, 101, 102, 102],
     [103, 122, 126, 126, 33, 33, 36, 36],
     [37, 37, 38, 38, 39, 39, 40, 40],
     [41, 41, 42, 42, 43, 43, 45, 45],
     [46, 46, 47, 47, 48, 57, 58, 58],
     [59, 59, 65, 65, 66, 66, 67, 67],
     [68, 68, 69, 69, 70, 70, 71, 90],
     [91, 91, 93, 93, 95, 95, 97, 97],
     [98, 98, 99, 99, 100, 100, 101, 101],
     [102, 102, 103, 122, 126, 126, 33, 33],
     [36, 36, 37, 37, 38, 38, 39, 39],
     [40, 40, 41, 41, 42, 42, 43, 43],
     [45, 45, 46, 46, 47, 47, 48, 57],
     [58, 58, 59, 59, 65, 65, 66, 66],
     [67, 67, 68, 68, 69, 69, 70, 70],
     [71, 90, 91, 91, 93, 93, 95, 95],
     [97, 97, 98, 98, 99, 99, 100, 100],
     [101, 101, 102, 102, 103, 122, 126, 126],
     [33, 33, 36, 36, 37, 37, 38, 38],
     [39, 39, 40, 40, 41, 41, 42, 42],
     [43, 43, 45, 45, 46, 46, 47, 47],
     [48, 57, 58, 58, 59, 59, 65, 65],
     [66, 66, 67, 67, 68, 68, 69, 69],
     [70, 70, 71, 90, 91, 91, 93, 93],
     [95, 95, 97, 97, 98, 98, 99, 99],
     [100, 100, 101, 101, 102, 102, 103, 122],
     [126, 126, 33, 33, 36, 36, 37, 37],
     [38, 38, 39, 39, 40, 40, 41, 41],
     [42, 42, 43, 43, 45, 45, 46, 46],
     [47, 47, 48, 48, 49, 49, 50, 50],
     [51, 57, 58, 58, 59, 59, 65, 65],
     [66, 66, 67, 67, 68, 68, 69, 69],
     [70, 70, 71, 90, 91, 91, 93, 93]]"

definition sup_cond_keys_93 :: "int list list" where
  "sup_cond_keys_93 =
    [[95, 95, 97, 97, 98, 98, 99, 99],
     [100, 100, 101, 101, 102, 102, 103, 122],
     [126, 126, 33, 33, 36, 36, 37, 37],
     [38, 38, 39, 39, 40, 40, 41, 41],
     [42, 42, 43, 43, 45, 45, 46, 46],
     [47, 47, 48, 57, 58, 58, 59, 59],
     [65, 65, 66, 66, 67, 67, 68, 68],
     [69, 69, 70, 70, 71, 90, 91, 91],
     [93, 93, 95, 95, 97, 97, 98, 98],
     [99, 99, 100, 100, 101, 101, 102, 102],
     [103, 122, 126, 126, 33, 33, 36, 36],
     [37, 37, 38, 38, 39, 39, 40, 40],
     [41, 41, 42, 42, 43, 43, 45, 45],
     [46, 46, 47, 47, 48, 57, 58, 58],
     [59, 59, 65, 65, 66, 66, 67, 67],
     [68, 68, 69, 69, 70, 70, 71, 90],
     [91, 91, 93, 93, 95, 95, 97, 97],
     [98, 98, 99, 99, 100, 100, 101, 101],
     [102, 102, 103, 122, 126, 126, 33, 33],
     [36, 36, 37, 37, 38, 38, 39, 39],
     [40, 40, 41, 41, 42, 42, 43, 43],
     [45, 45, 46, 46, 47, 47, 48, 57],
     [58, 58, 59, 59, 65, 65, 66, 66],
     [67, 67, 68, 68, 69, 69, 70, 70],
     [71, 90, 91, 91, 93, 93, 95, 95],
     [97, 97, 98, 98, 99, 99, 100, 100],
     [101, 101, 102, 102, 103, 122, 126, 126],
     [33, 33, 36, 36, 37, 37, 38, 38],
     [39, 39, 40, 40, 41, 41, 42, 42],
     [43, 43, 45, 45, 46, 46, 47, 47],
     [48, 57, 58, 58, 59, 59, 65, 90],
     [91, 91, 93, 93, 95, 95, 97, 122],
     [126, 126, 33, 33, 36, 36, 37, 37],
     [38, 38, 39, 39, 40, 40, 41, 41],
     [42, 42, 43, 43, 45, 45, 46, 46],
     [47, 47, 48, 48, 49, 49, 50, 50],
     [51, 57, 58, 58, 59, 59, 65, 65],
     [66, 66, 67, 67, 68, 68, 69, 69],
     [70, 70, 71, 90, 91, 91, 93, 93],
     [95, 95, 97, 97, 98, 98, 99, 99],
     [100, 100, 101, 101, 102, 102, 103, 122],
     [126, 126, 33, 33, 36, 36, 37, 37],
     [38, 38, 39, 39, 40, 40, 41, 41],
     [42, 42, 43, 43, 45, 45, 46, 46],
     [47, 47, 48, 57, 58, 58, 59, 59],
     [65, 65, 66, 66, 67, 67, 68, 68],
     [69, 69, 70, 70, 71, 90, 91, 91],
     [93, 93, 95, 95, 97, 97, 98, 98],
     [99, 99, 100, 100, 101, 101, 102, 102],
     [103, 122, 126, 126, 33, 33, 36, 36],
     [37, 37, 38, 38, 39, 39, 40, 40],
     [41, 41, 42, 42, 43, 43, 45, 45],
     [46, 46, 47, 47, 48, 57, 58, 58],
     [59, 59, 65, 65, 66, 66, 67, 67],
     [68, 68, 69, 69, 70, 70, 71, 90],
     [91, 91, 93, 93, 95, 95, 97, 97],
     [98, 98, 99, 99, 100, 100, 101, 101],
     [102, 102, 103, 122, 126, 126, 33, 33],
     [36, 36, 37, 37, 38, 38, 39, 39],
     [40, 40, 41, 41, 42, 42, 43, 43],
     [45, 45, 46, 46, 47, 47, 48, 57],
     [58, 58, 59, 59, 65, 65, 66, 66],
     [67, 67, 68, 68, 69, 69, 70, 70],
     [71, 90, 91, 91, 93, 93, 95, 95],
     [97, 97, 98, 98, 99, 99, 100, 100],
     [101, 101, 102, 102, 103, 122, 126, 126],
     [33, 33, 36, 36, 37, 37, 38, 38],
     [39, 39, 40, 40, 41, 41, 42, 42],
     [43, 43, 45, 45, 46, 46, 47, 47],
     [48, 52, 53, 53, 54, 57, 58, 58],
     [59, 59, 65, 65, 66, 66, 67, 67],
     [68, 68, 69, 69, 70, 70, 71, 90],
     [91, 91, 93, 93, 95, 95, 97, 97],
     [98, 98, 99, 99, 100, 100, 101, 101],
     [102, 102, 103, 122, 126, 126, 33, 33],
     [36, 36, 37, 37, 38, 38, 39, 39],
     [40, 40, 41, 41, 42, 42, 43, 43],
     [45, 45, 46, 46, 47, 47, 48, 53],
     [54, 57, 58, 58, 59, 59, 65, 65],
     [66, 66, 67, 67, 68, 68, 69, 69],
     [70, 70, 71, 90, 91, 91, 93, 93],
     [95, 95, 97, 97, 98, 98, 99, 99],
     [100, 100, 101, 101, 102, 102, 103, 122],
     [126, 126, 33, 33, 36, 36, 37, 37],
     [38, 38, 39, 39, 40, 40, 41, 41],
     [42, 42, 43, 43, 45, 45, 46, 46],
     [47, 47, 48, 57, 58, 58, 59, 59],
     [65, 65, 66, 66, 67, 67, 68, 68],
     [69, 69, 70, 70, 71, 90, 91, 91],
     [93, 93, 95, 95, 97, 97, 98, 98],
     [99, 99, 100, 100, 101, 101, 102, 102],
     [103, 122, 126, 126, 33, 33, 36, 36],
     [37, 37, 38, 38, 39, 39, 40, 40],
     [41, 41, 42, 42, 43, 43, 45, 45],
     [46, 46, 47, 47, 48, 57, 58, 58],
     [59, 59, 65, 65, 66, 66, 67, 67],
     [68, 68, 69, 69, 70, 70, 71, 90],
     [91, 91, 93, 93, 95, 95, 97, 97],
     [98, 98, 99, 99, 100, 100, 101, 101],
     [102, 102, 103, 122, 126, 126, 33, 33],
     [36, 36, 37, 37, 38, 38, 39, 39],
     [40, 40, 41, 41, 42, 42, 43, 43],
     [45, 45, 46, 46, 47, 47, 48, 57],
     [58, 58, 59, 59, 65, 65, 66, 66],
     [67, 67, 68, 68, 69, 69, 70, 70],
     [71, 90, 91, 91, 93, 93, 95, 95],
     [97, 97, 98, 98, 99, 99, 100, 100],
     [101, 101, 102, 102, 103, 122, 126, 126],
     [33, 33, 36, 36, 37, 37, 38, 38],
     [39, 39, 40, 40, 41, 41, 42, 42],
     [43, 43, 45, 45, 46, 46, 47, 47],
     [48, 48, 49, 49, 50, 50, 51, 57],
     [58, 58, 59, 59, 65, 65, 66, 66],
     [67, 67, 68, 68, 69, 69, 70, 70],
     [71, 90, 91, 91, 93, 93, 95, 95],
     [97, 97, 98, 98, 99, 99, 100, 100],
     [101, 101, 102, 102, 103, 122, 126, 126],
     [33, 33, 36, 36, 37, 37, 38, 38],
     [39, 39, 40, 40, 41, 41, 42, 42],
     [43, 43, 45, 45, 46, 46, 47, 47],
     [48, 57, 58, 58, 59, 59, 65, 65],
     [66, 66, 67, 67, 68, 68, 69, 69],
     [70, 70, 71, 90, 91, 91, 93, 93],
     [95, 95, 97, 97, 98, 98, 99, 99],
     [100, 100, 101, 101, 102, 102, 103, 122],
     [126, 126, 33, 33, 36, 36, 37, 37],
     [38, 38, 39, 39, 40, 40, 41, 41],
     [42, 42, 43, 43, 45, 45, 46, 46],
     [47, 47, 48, 57, 58, 58, 59, 59],
     [65, 65, 66, 66, 67, 67, 68, 68],
     [69, 69, 70, 70, 71, 90, 91, 91],
     [93, 93, 95, 95, 97, 97, 98, 98],
     [99, 99, 100, 100, 101, 101, 102, 102],
     [103, 122, 126, 126, 33, 33, 36, 36],
     [37, 37, 38, 38, 39, 39, 40, 40],
     [41, 41, 42, 42, 43, 43, 45, 45],
     [46, 46, 47, 47, 48, 57, 58, 58],
     [59, 59, 65, 65, 66, 66, 67, 67],
     [68, 68, 69, 69, 70, 70, 71, 90],
     [91, 91, 93, 93, 95, 95, 97, 97],
     [98, 98, 99, 99, 100, 100, 101, 101],
     [102, 102, 103, 122, 126, 126, 33, 33],
     [36, 36, 37, 37, 38, 38, 39, 39],
     [40, 40, 41, 41, 42, 42, 43, 43],
     [45, 45, 46, 46, 47, 47, 48, 57],
     [58, 58, 59, 59, 65, 90, 91, 91],
     [93, 93, 95, 95, 97, 122, 126, 126],
     [33, 33, 36, 36, 37, 37, 38, 38],
     [39, 39, 40, 40, 41, 41, 42, 42],
     [43, 43, 45, 45, 46, 46, 47, 47]]"

definition sup_cond_keys_94 :: "int list list" where
  "sup_cond_keys_94 =
    [[48, 48, 49, 49, 50, 50, 51, 57],
     [58, 58, 59, 59, 65, 65, 66, 66],
     [67, 67, 68, 68, 69, 69, 70, 70],
     [71, 90, 91, 91, 93, 93, 95, 95],
     [97, 97, 98, 98, 99, 99, 100, 100],
     [101, 101, 102, 102, 103, 122, 126, 126],
     [33, 33, 36, 36, 37, 37, 38, 38],
     [39, 39, 40, 40, 41, 41, 42, 42],
     [43, 43, 45, 45, 46, 46, 47, 47],
     [48, 57, 58, 58, 59, 59, 65, 65],
     [66, 66, 67, 67, 68, 68, 69, 69],
     [70, 70, 71, 90, 91, 91, 93, 93],
     [95, 95, 97, 97, 98, 98, 99, 99],
     [100, 100, 101, 101, 102, 102, 103, 122],
     [126, 126, 33, 33, 36, 36, 37, 37],
     [38, 38, 39, 39, 40, 40, 41, 41],
     [42, 42, 43, 43, 45, 45, 46, 46],
     [47, 47, 48, 57, 58, 58, 59, 59],
     [65, 65, 66, 66, 67, 67, 68, 68],
     [69, 69, 70, 70, 71, 90, 91, 91],
     [93, 93, 95, 95, 97, 97, 98, 98],
     [99, 99, 100, 100, 101, 101, 102, 102],
     [103, 122, 126, 126, 33, 33, 36, 36],
     [37, 37, 38, 38, 39, 39, 40, 40],
     [41, 41, 42, 42, 43, 43, 45, 45],
     [46, 46, 47, 47, 48, 57, 58, 58],
     [59, 59, 65, 65, 66, 66, 67, 67],
     [68, 68, 69, 69, 70, 70, 71, 90],
     [91, 91, 93, 93, 95, 95, 97, 97],
     [98, 98, 99, 99, 100, 100, 101, 101],
     [102, 102, 103, 122, 126, 126, 33, 33],
     [36, 36, 37, 37, 38, 38, 39, 39],
     [40, 40, 41, 41, 42, 42, 43, 43],
     [45, 45, 46, 46, 47, 47, 48, 52],
     [53, 53, 54, 57, 58, 58, 59, 59],
     [65, 65, 66, 66, 67, 67, 68, 68],
     [69, 69, 70, 70, 71, 90, 91, 91],
     [93, 93, 95, 95, 97, 97, 98, 98],
     [99, 99, 100, 100, 101, 101, 102, 102],
     [103, 122, 126, 126, 33, 33, 36, 36],
     [37, 37, 38, 38, 39, 39, 40, 40],
     [41, 41, 42, 42, 43, 43, 45, 45],
     [46, 46, 47, 47, 48, 53, 54, 57],
     [58, 58, 59, 59, 65, 65, 66, 66],
     [67, 67, 68, 68, 69, 69, 70, 70],
     [71, 90, 91, 91, 93, 93, 95, 95],
     [97, 97, 98, 98, 99, 99, 100, 100],
     [101, 101, 102, 102, 103, 122, 126, 126],
     [33, 33, 36, 36, 37, 37, 38, 38],
     [39, 39, 40, 40, 41, 41, 42, 42],
     [43, 43, 45, 45, 46, 46, 47, 47],
     [48, 57, 58, 58, 59, 59, 65, 65],
     [66, 66, 67, 67, 68, 68, 69, 69],
     [70, 70, 71, 90, 91, 91, 93, 93],
     [95, 95, 97, 97, 98, 98, 99, 99],
     [100, 100, 101, 101, 102, 102, 103, 122],
     [126, 126, 33, 33, 36, 36, 37, 37],
     [38, 38, 39, 39, 40, 40, 41, 41],
     [42, 42, 43, 43, 45, 45, 46, 46],
     [47, 47, 48, 57, 58, 58, 59, 59],
     [65, 65, 66, 66, 67, 67, 68, 68],
     [69, 69, 70, 70, 71, 90, 91, 91],
     [93, 93, 95, 95, 97, 97, 98, 98],
     [99, 99, 100, 100, 101, 101, 102, 102],
     [103, 122, 126, 126, 33, 33, 36, 36],
     [37, 37, 38, 38, 39, 39, 40, 40],
     [41, 41, 42, 42, 43, 43, 45, 45],
     [46, 46, 47, 47, 48, 57, 58, 58],
     [59, 59, 65, 65, 66, 66, 67, 67],
     [68, 68, 69, 69, 70, 70, 71, 90],
     [91, 91, 93, 93, 95, 95, 97, 97],
     [98, 98, 99, 99, 100, 100, 101, 101],
     [102, 102, 103, 122, 126, 126, 33, 33],
     [36, 36, 37, 37, 38, 38, 39, 39],
     [40, 40, 41, 41, 42, 42, 43, 43],
     [45, 45, 46, 46, 47, 47, 48, 48],
     [49, 49, 50, 50, 51, 57, 58, 58],
     [59, 59, 65, 65, 66, 66, 67, 67],
     [68, 68, 69, 69, 70, 70, 71, 90],
     [91, 91, 93, 93, 95, 95, 97, 97],
     [98, 98, 99, 99, 100, 100, 101, 101],
     [102, 102, 103, 122, 126, 126, 33, 33],
     [36, 36, 37, 37, 38, 38, 39, 39],
     [40, 40, 41, 41, 42, 42, 43, 43],
     [45, 45, 46, 46, 47, 47, 48, 57],
     [58, 58, 59, 59, 65, 65, 66, 66],
     [67, 67, 68, 68, 69, 69, 70, 70],
     [71, 90, 91, 91, 93, 93, 95, 95],
     [97, 97, 98, 98, 99, 99, 100, 100],
     [101, 101, 102, 102, 103, 122, 126, 126],
     [33, 33, 36, 36, 37, 37, 38, 38],
     [39, 39, 40, 40, 41, 41, 42, 42],
     [43, 43, 45, 45, 46, 46, 47, 47],
     [48, 57, 58, 58, 59, 59, 65, 65],
     [66, 66, 67, 67, 68, 68, 69, 69],
     [70, 70, 71, 90, 91, 91, 93, 93],
     [95, 95, 97, 97, 98, 98, 99, 99],
     [100, 100, 101, 101, 102, 102, 103, 122],
     [126, 126, 33, 33, 36, 36, 37, 37],
     [38, 38, 39, 39, 40, 40, 41, 41],
     [42, 42, 43, 43, 45, 45, 46, 46],
     [47, 47, 48, 57, 58, 58, 59, 59],
     [65, 65, 66, 66, 67, 67, 68, 68],
     [69, 69, 70, 70, 71, 90, 91, 91],
     [93, 93, 95, 95, 97, 97, 98, 98],
     [99, 99, 100, 100, 101, 101, 102, 102],
     [103, 122, 126, 126, 33, 33, 36, 36],
     [37, 37, 38, 38, 39, 39, 40, 40],
     [41, 41, 42, 42, 43, 43, 45, 45],
     [46, 46, 47, 47, 48, 57, 58, 58],
     [59, 59, 65, 90, 91, 91, 93, 93],
     [95, 95, 97, 122, 126, 126, 33, 33],
     [36, 36, 37, 37, 38, 38, 39, 39],
     [40, 40, 41, 41, 42, 42, 43, 43],
     [45, 45, 46, 46, 47, 47, 48, 48],
     [49, 49, 50, 50, 51, 57, 58, 58],
     [59, 59, 65, 65, 66, 66, 67, 67],
     [68, 68, 69, 69, 70, 70, 71, 90],
     [91, 91, 93, 93, 95, 95, 97, 97],
     [98, 98, 99, 99, 100, 100, 101, 101],
     [102, 102, 103, 122, 126, 126, 33, 33],
     [36, 36, 37, 37, 38, 38, 39, 39],
     [40, 40, 41, 41, 42, 42, 43, 43],
     [45, 45, 46, 46, 47, 47, 48, 57],
     [58, 58, 59, 59, 65, 65, 66, 66],
     [67, 67, 68, 68, 69, 69, 70, 70],
     [71, 90, 91, 91, 93, 93, 95, 95],
     [97, 97, 98, 98, 99, 99, 100, 100],
     [101, 101, 102, 102, 103, 122, 126, 126],
     [33, 33, 36, 36, 37, 37, 38, 38],
     [39, 39, 40, 40, 41, 41, 42, 42],
     [43, 43, 45, 45, 46, 46, 47, 47],
     [48, 57, 58, 58, 59, 59, 65, 65],
     [66, 66, 67, 67, 68, 68, 69, 69],
     [70, 70, 71, 90, 91, 91, 93, 93],
     [95, 95, 97, 97, 98, 98, 99, 99],
     [100, 100, 101, 101, 102, 102, 103, 122],
     [126, 126, 33, 33, 36, 36, 37, 37],
     [38, 38, 39, 39, 40, 40, 41, 41],
     [42, 42, 43, 43, 45, 45, 46, 46],
     [47, 47, 48, 57, 58, 58, 59, 59],
     [65, 65, 66, 66, 67, 67, 68, 68],
     [69, 69, 70, 70, 71, 90, 91, 91],
     [93, 93, 95, 95, 97, 97, 98, 98],
     [99, 99, 100, 100, 101, 101, 102, 102],
     [103, 122, 126, 126, 33, 33, 36, 36],
     [37, 37, 38, 38, 39, 39, 40, 40],
     [41, 41, 42, 42, 43, 43, 45, 45],
     [46, 46, 47, 47, 48, 52, 53, 53],
     [54, 57, 58, 58, 59, 59, 65, 65]]"

definition sup_cond_keys_95 :: "int list list" where
  "sup_cond_keys_95 =
    [[66, 66, 67, 67, 68, 68, 69, 69],
     [70, 70, 71, 90, 91, 91, 93, 93],
     [95, 95, 97, 97, 98, 98, 99, 99],
     [100, 100, 101, 101, 102, 102, 103, 122],
     [126, 126, 33, 33, 36, 36, 37, 37],
     [38, 38, 39, 39, 40, 40, 41, 41],
     [42, 42, 43, 43, 45, 45, 46, 46],
     [47, 47, 48, 53, 54, 57, 58, 58],
     [59, 59, 65, 65, 66, 66, 67, 67],
     [68, 68, 69, 69, 70, 70, 71, 90],
     [91, 91, 93, 93, 95, 95, 97, 97],
     [98, 98, 99, 99, 100, 100, 101, 101],
     [102, 102, 103, 122, 126, 126, 33, 33],
     [36, 36, 37, 37, 38, 38, 39, 39],
     [40, 40, 41, 41, 42, 42, 43, 43],
     [45, 45, 46, 46, 47, 47, 48, 57],
     [58, 58, 59, 59, 65, 65, 66, 66],
     [67, 67, 68, 68, 69, 69, 70, 70],
     [71, 90, 91, 91, 93, 93, 95, 95],
     [97, 97, 98, 98, 99, 99, 100, 100],
     [101, 101, 102, 102, 103, 122, 126, 126],
     [33, 33, 36, 36, 37, 37, 38, 38],
     [39, 39, 40, 40, 41, 41, 42, 42],
     [43, 43, 45, 45, 46, 46, 47, 47],
     [48, 57, 58, 58, 59, 59, 65, 65],
     [66, 66, 67, 67, 68, 68, 69, 69],
     [70, 70, 71, 90, 91, 91, 93, 93],
     [95, 95, 97, 97, 98, 98, 99, 99],
     [100, 100, 101, 101, 102, 102, 103, 122],
     [126, 126, 33, 33, 36, 36, 37, 37],
     [38, 38, 39, 39, 40, 40, 41, 41],
     [42, 42, 43, 43, 45, 45, 46, 46],
     [47, 47, 48, 57, 58, 58, 59, 59],
     [65, 65, 66, 66, 67, 67, 68, 68],
     [69, 69, 70, 70, 71, 90, 91, 91],
     [93, 93, 95, 95, 97, 97, 98, 98],
     [99, 99, 100, 100, 101, 101, 102, 102],
     [103, 122, 126, 126, 33, 33, 36, 36],
     [37, 37, 38, 38, 39, 39, 40, 40],
     [41, 41, 42, 42, 43, 43, 45, 45],
     [46, 46, 47, 47, 48, 57, 58, 58],
     [59, 59, 65, 90, 91, 91, 93, 93],
     [95, 95, 97, 122, 126, 126, 33, 33],
     [36, 36, 37, 37, 38, 38, 39, 39],
     [40, 40, 41, 41, 42, 42, 43, 43],
     [45, 45, 46, 46, 47, 47, 48, 48],
     [49, 49, 50, 50, 51, 57, 58, 58],
     [59, 59, 65, 65, 66, 66, 67, 67],
     [68, 68, 69, 69, 70, 70, 71, 90],
     [91, 91, 93, 93, 95, 95, 97, 97],
     [98, 98, 99, 99, 100, 100, 101, 101],
     [102, 102, 103, 122, 126, 126, 33, 33],
     [36, 36, 37, 37, 38, 38, 39, 39],
     [40, 40, 41, 41, 42, 42, 43, 43],
     [45, 45, 46, 46, 47, 47, 48, 57],
     [58, 58, 59, 59, 65, 65, 66, 66],
     [67, 67, 68, 68, 69, 69, 70, 70],
     [71, 90, 91, 91, 93, 93, 95, 95],
     [97, 97, 98, 98, 99, 99, 100, 100],
     [101, 101, 102, 102, 103, 122, 126, 126],
     [33, 33, 36, 36, 37, 37, 38, 38],
     [39, 39, 40, 40, 41, 41, 42, 42],
     [43, 43, 45, 45, 46, 46, 47, 47],
     [48, 57, 58, 58, 59, 59, 65, 65],
     [66, 66, 67, 67, 68, 68, 69, 69],
     [70, 70, 71, 90, 91, 91, 93, 93],
     [95, 95, 97, 97, 98, 98, 99, 99],
     [100, 100, 101, 101, 102, 102, 103, 122],
     [126, 126, 33, 33, 36, 36, 37, 37],
     [38, 38, 39, 39, 40, 40, 41, 41],
     [42, 42, 43, 43, 45, 45, 46, 46],
     [47, 47, 48, 57, 58, 58, 59, 59],
     [65, 65, 66, 66, 67, 67, 68, 68],
     [69, 69, 70, 70, 71, 90, 91, 91],
     [93, 93, 95, 95, 97, 97, 98, 98],
     [99, 99, 100, 100, 101, 101, 102, 102],
     [103, 122, 126, 126, 33, 33, 36, 36],
     [37, 37, 38, 38, 39, 39, 40, 40],
     [41, 41, 42, 42, 43, 43, 45, 45],
     [46, 46, 47, 47, 48, 57, 58, 58],
     [59, 59, 65, 90, 91, 91, 93, 93],
     [95, 95, 97, 122, 126, 126, 33, 33],
     [36, 36, 37, 37, 38, 38, 39, 39],
     [40, 40, 41, 41, 42, 42, 43, 43],
     [45, 45, 46, 46, 47, 47, 48, 48],
     [49, 49, 50, 50, 51, 57, 58, 58],
     [59, 59, 65, 65, 66, 66, 67, 67],
     [68, 68, 69, 69, 70, 70, 71, 90],
     [91, 91, 93, 93, 95, 95, 97, 97],
     [98, 98, 99, 99, 100, 100, 101, 101],
     [102, 102, 103, 122, 126, 126, 33, 33],
     [36, 36, 37, 37, 38, 38, 39, 39],
     [40, 40, 41, 41, 42, 42, 43, 43],
     [45, 45, 46, 46, 47, 47, 48, 57],
     [58, 58, 59, 59, 65, 65, 66, 66],
     [67, 67, 68, 68, 69, 69, 70, 70],
     [71, 90, 91, 91, 93, 93, 95, 95],
     [97, 97, 98, 98, 99, 99, 100, 100],
     [101, 101, 102, 102, 103, 122, 126, 126],
     [33, 33, 36, 36, 37, 37, 38, 38],
     [39, 39, 40, 40, 41, 41, 42, 42],
     [43, 43, 45, 45, 46, 46, 47, 47],
     [48, 57, 58, 58, 59, 59, 65, 65],
     [66, 66, 67, 67, 68, 68, 69, 69],
     [70, 70, 71, 90, 91, 91, 93, 93],
     [95, 95, 97, 97, 98, 98, 99, 99],
     [100, 100, 101, 101, 102, 102, 103, 122],
     [126, 126, 33, 33, 36, 36, 37, 37],
     [38, 38, 39, 39, 40, 40, 41, 41],
     [42, 42, 43, 43, 45, 45, 46, 46],
     [47, 47, 48, 57, 58, 58, 59, 59],
     [65, 65, 66, 66, 67, 67, 68, 68],
     [69, 69, 70, 70, 71, 90, 91, 91],
     [93, 93, 95, 95, 97, 97, 98, 98],
     [99, 99, 100, 100, 101, 101, 102, 102],
     [103, 122, 126, 126, 33, 33, 36, 36],
     [37, 37, 38, 38, 39, 39, 40, 40],
     [41, 41, 42, 42, 43, 43, 45, 45],
     [46, 46, 47, 47, 48, 52, 53, 53],
     [54, 57, 58, 58, 59, 59, 65, 65],
     [66, 66, 67, 67, 68, 68, 69, 69],
     [70, 70, 71, 90, 91, 91, 93, 93],
     [95, 95, 97, 97, 98, 98, 99, 99],
     [100, 100, 101, 101, 102, 102, 103, 122],
     [126, 126, 33, 33, 36, 36, 37, 37],
     [38, 38, 39, 39, 40, 40, 41, 41],
     [42, 42, 43, 43, 45, 45, 46, 46],
     [47, 47, 48, 53, 54, 57, 58, 58],
     [59, 59, 65, 65, 66, 66, 67, 67],
     [68, 68, 69, 69, 70, 70, 71, 90],
     [91, 91, 93, 93, 95, 95, 97, 97],
     [98, 98, 99, 99, 100, 100, 101, 101],
     [102, 102, 103, 122, 126, 126, 33, 33],
     [36, 36, 37, 37, 38, 38, 39, 39],
     [40, 40, 41, 41, 42, 42, 43, 43],
     [45, 45, 46, 46, 47, 47, 48, 57],
     [58, 58, 59, 59, 65, 65, 66, 66],
     [67, 67, 68, 68, 69, 69, 70, 70],
     [71, 90, 91, 91, 93, 93, 95, 95],
     [97, 97, 98, 98, 99, 99, 100, 100],
     [101, 101, 102, 102, 103, 122, 126, 126],
     [33, 33, 36, 36, 37, 37, 38, 38],
     [39, 39, 40, 40, 41, 41, 42, 42],
     [43, 43, 45, 45, 46, 46, 47, 47],
     [48, 57, 58, 58, 59, 59, 65, 65],
     [66, 66, 67, 67, 68, 68, 69, 69],
     [70, 70, 71, 90, 91, 91, 93, 93],
     [95, 95, 97, 97, 98, 98, 99, 99],
     [100, 100, 101, 101, 102, 102, 103, 122],
     [126, 126, 33, 33, 36, 36, 37, 37]]"

definition sup_cond_keys_96 :: "int list list" where
  "sup_cond_keys_96 =
    [[38, 38, 39, 39, 40, 40, 41, 41],
     [42, 42, 43, 43, 45, 45, 46, 46],
     [47, 47, 48, 57, 58, 58, 59, 59],
     [65, 65, 66, 66, 67, 67, 68, 68],
     [69, 69, 70, 70, 71, 90, 91, 91],
     [93, 93, 95, 95, 97, 97, 98, 98],
     [99, 99, 100, 100, 101, 101, 102, 102],
     [103, 122, 126, 126, 9, 9, 13, 13],
     [32, 32, 33, 33, 37, 37, 39, 39],
     [42, 42, 43, 43, 45, 45, 46, 46],
     [48, 57, 59, 59, 61, 61, 65, 71],
     [72, 72, 73, 90, 95, 95, 96, 96],
     [97, 103, 104, 104, 105, 122, 126, 126],
     [9, 9, 13, 13, 32, 32, 33, 33],
     [37, 37, 39, 39, 42, 42, 43, 43],
     [45, 45, 46, 46, 48, 57, 59, 59],
     [61, 61, 65, 78, 79, 79, 80, 90],
     [95, 95, 96, 96, 97, 110, 111, 111],
     [112, 122, 126, 126, 9, 9, 13, 13],
     [32, 32, 33, 33, 37, 37, 39, 39],
     [42, 42, 43, 43, 45, 45, 46, 46],
     [48, 57, 59, 59, 61, 61, 65, 77],
     [78, 78, 79, 90, 95, 95, 96, 96],
     [97, 109, 110, 110, 111, 122, 126, 126],
     [9, 9, 13, 13, 32, 32, 33, 33],
     [37, 37, 39, 39, 42, 42, 43, 43],
     [45, 45, 46, 46, 48, 57, 59, 59],
     [61, 61, 65, 68, 69, 69, 70, 90],
     [95, 95, 96, 96, 97, 100, 101, 101],
     [102, 122, 126, 126, 9, 9, 13, 13],
     [32, 32, 33, 33, 37, 37, 39, 39],
     [42, 42, 43, 43, 45, 45, 46, 46],
     [48, 57, 59, 59, 61, 61, 65, 90],
     [95, 95, 96, 96, 97, 122, 126, 126],
     [9, 9, 13, 13, 32, 32, 33, 33],
     [37, 37, 39, 39, 42, 42, 43, 43],
     [45, 45, 46, 46, 48, 57, 59, 59],
     [61, 61, 65, 66, 67, 67, 68, 90],
     [95, 95, 96, 96, 97, 98, 99, 99],
     [100, 122, 126, 126, 9, 9, 13, 13],
     [32, 32, 33, 33, 37, 37, 39, 39],
     [42, 42, 43, 43, 45, 45, 46, 46],
     [48, 57, 59, 59, 61, 61, 65, 78],
     [79, 79, 80, 90, 95, 95, 96, 96],
     [97, 110, 111, 111, 112, 122, 126, 126],
     [9, 9, 13, 13, 32, 32, 33, 33],
     [37, 37, 39, 39, 42, 42, 43, 43],
     [45, 45, 46, 46, 48, 57, 59, 59],
     [61, 61, 65, 77, 78, 78, 79, 90],
     [95, 95, 96, 96, 97, 109, 110, 110],
     [111, 122, 126, 126, 9, 9, 13, 13],
     [32, 32, 33, 33, 37, 37, 39, 39],
     [42, 42, 43, 43, 45, 45, 46, 46],
     [48, 57, 59, 59, 61, 61, 65, 83],
     [84, 84, 85, 90, 95, 95, 96, 96],
     [97, 115, 116, 116, 117, 122, 126, 126],
     [9, 9, 13, 13, 32, 32, 33, 33],
     [37, 37, 39, 39, 42, 42, 43, 43],
     [45, 45, 46, 46, 48, 57, 59, 59],
     [61, 61, 65, 68, 69, 69, 70, 90],
     [95, 95, 96, 96, 97, 100, 101, 101],
     [102, 122, 126, 126, 9, 9, 13, 13],
     [32, 32, 33, 33, 37, 37, 39, 39],
     [42, 42, 43, 43, 45, 45, 46, 46],
     [48, 57, 59, 59, 61, 61, 65, 87],
     [88, 88, 89, 90, 95, 95, 96, 96],
     [97, 119, 120, 120, 121, 122, 126, 126],
     [9, 9, 13, 13, 32, 32, 33, 33],
     [37, 37, 39, 39, 42, 42, 43, 43],
     [45, 45, 46, 46, 48, 57, 59, 59],
     [61, 61, 65, 83, 84, 84, 85, 90],
     [95, 95, 96, 96, 97, 115, 116, 116],
     [117, 122, 126, 126, 9, 9, 13, 13],
     [32, 32, 33, 33, 37, 37, 39, 39],
     [42, 42, 43, 43, 45, 45, 46, 46],
     [48, 57, 59, 59, 61, 61, 65, 90],
     [95, 95, 96, 96, 97, 122, 126, 126],
     [9, 9, 13, 13, 32, 32, 33, 33],
     [34, 34, 36, 36, 37, 37, 38, 38],
     [39, 39, 40, 40, 41, 41, 42, 42],
     [43, 43, 45, 45, 46, 46, 47, 47],
     [48, 48, 49, 49, 50, 50, 51, 57],
     [58, 58, 65, 90, 91, 91, 93, 93],
     [95, 95, 96, 96, 97, 122, 126, 126],
     [9, 9, 13, 13, 32, 32, 33, 33],
     [36, 36, 37, 37, 38, 38, 39, 39],
     [40, 40, 41, 41, 42, 42, 43, 43],
     [45, 45, 46, 46, 47, 47, 48, 57],
     [58, 58, 59, 59, 65, 90, 91, 91],
     [93, 93, 95, 95, 96, 96, 97, 122],
     [126, 126, 9, 9, 13, 13, 32, 32],
     [33, 33, 36, 36, 37, 37, 38, 38],
     [39, 39, 40, 40, 41, 41, 42, 42],
     [43, 43, 45, 45, 46, 46, 47, 47],
     [48, 57, 58, 58, 59, 59, 65, 90],
     [91, 91, 93, 93, 95, 95, 96, 96],
     [97, 122, 126, 126, 9, 9, 13, 13],
     [32, 32, 33, 33, 36, 36, 37, 37],
     [38, 38, 39, 39, 40, 40, 41, 41],
     [42, 42, 43, 43, 45, 45, 46, 46],
     [47, 47, 48, 57, 58, 58, 59, 59],
     [65, 90, 91, 91, 93, 93, 95, 95],
     [96, 96, 97, 122, 126, 126, 9, 9],
     [13, 13, 32, 32, 33, 33, 36, 36],
     [37, 37, 38, 38, 39, 39, 40, 40],
     [41, 41, 42, 42, 43, 43, 45, 45],
     [46, 46, 47, 47, 48, 57, 58, 58],
     [59, 59, 65, 90, 91, 91, 93, 93],
     [95, 95, 96, 96, 97, 122, 126, 126],
     [9, 9, 13, 13, 32, 32, 33, 33],
     [36, 36, 37, 37, 38, 38, 39, 39],
     [40, 40, 41, 41, 42, 42, 43, 43],
     [45, 45, 46, 46, 47, 47, 48, 57],
     [58, 58, 59, 59, 65, 90, 91, 91],
     [93, 93, 95, 95, 96, 96, 97, 122],
     [126, 126, 9, 9, 13, 13, 32, 32],
     [33, 33, 36, 36, 37, 37, 38, 38],
     [39, 39, 40, 40, 41, 41, 42, 42],
     [43, 43, 45, 45, 46, 46, 47, 47],
     [48, 57, 58, 58, 59, 59, 65, 90],
     [91, 91, 93, 93, 95, 95, 96, 96],
     [97, 122, 126, 126, 9, 9, 13, 13],
     [32, 32, 33, 33, 36, 36, 37, 37],
     [38, 38, 39, 39, 40, 40, 41, 41],
     [42, 42, 43, 43, 45, 45, 46, 46],
     [47, 47, 48, 57, 58, 58, 59, 59],
     [65, 90, 91, 91, 93, 93, 95, 95],
     [96, 96, 97, 122, 126, 126, 9, 9],
     [13, 13, 32, 32, 33, 33, 36, 36],
     [37, 37, 38, 38, 39, 39, 40, 40],
     [41, 41, 42, 42, 43, 43, 45, 45],
     [46, 46, 47, 47, 48, 57, 58, 58],
     [59, 59, 65, 90, 91, 91, 93, 93],
     [95, 95, 96, 96, 97, 122, 126, 126],
     [35, 35, 40, 40, 41, 41, 42, 42],
     [45, 45, 46, 46, 48, 57, 65, 65],
     [66, 66, 67, 67, 68, 68, 69, 69],
     [70, 70, 97, 97, 98, 98, 99, 99],
     [100, 100, 101, 101, 102, 102, 40, 40],
     [41, 41, 45, 45, 46, 46, 48, 57],
     [9, 9, 13, 13, 32, 32, 40, 40],
     [41, 41, 45, 45, 46, 46, 48, 57],
     [59, 59, 0]]"

definition sup_cond_keys :: "int list" where
  "sup_cond_keys =
     concat sup_cond_keys_1 @ concat sup_cond_keys_2 @ concat sup_cond_keys_3 @
     concat sup_cond_keys_4 @ concat sup_cond_keys_5 @ concat sup_cond_keys_6 @
     concat sup_cond_keys_7 @ concat sup_cond_keys_8 @ concat sup_cond_keys_9 @
     concat sup_cond_keys_10 @ concat sup_cond_keys_11 @ concat sup_cond_keys_12 @
     concat sup_cond_keys_13 @ concat sup_cond_keys_14 @ concat sup_cond_keys_15 @
     concat sup_cond_keys_16 @ concat sup_cond_keys_17 @ concat sup_cond_keys_18 @
     concat sup_cond_keys_19 @ concat sup_cond_keys_20 @ concat sup_cond_keys_21 @
     concat sup_cond_keys_22 @ concat sup_cond_keys_23 @ concat sup_cond_keys_24 @
     concat sup_cond_keys_25 @ concat sup_cond_keys_26 @ concat sup_cond_keys_27 @
     concat sup_cond_keys_28 @ concat sup_cond_keys_29 @ concat sup_cond_keys_30 @
     concat sup_cond_keys_31 @ concat sup_cond_keys_32 @ concat sup_cond_keys_33 @
     concat sup_cond_keys_34 @ concat sup_cond_keys_35 @ concat sup_cond_keys_36 @
     concat sup_cond_keys_37 @ concat sup_cond_keys_38 @ concat sup_cond_keys_39 @
     concat sup_cond_keys_40 @ concat sup_cond_keys_41 @ concat sup_cond_keys_42 @
     concat sup_cond_keys_43 @ concat sup_cond_keys_44 @ concat sup_cond_keys_45 @
     concat sup_cond_keys_46 @ concat sup_cond_keys_47 @ concat sup_cond_keys_48 @
     concat sup_cond_keys_49 @ concat sup_cond_keys_50 @ concat sup_cond_keys_51 @
     concat sup_cond_keys_52 @ concat sup_cond_keys_53 @ concat sup_cond_keys_54 @
     concat sup_cond_keys_55 @ concat sup_cond_keys_56 @ concat sup_cond_keys_57 @
     concat sup_cond_keys_58 @ concat sup_cond_keys_59 @ concat sup_cond_keys_60 @
     concat sup_cond_keys_61 @ concat sup_cond_keys_62 @ concat sup_cond_keys_63 @
     concat sup_cond_keys_64 @ concat sup_cond_keys_65 @ concat sup_cond_keys_66 @
     concat sup_cond_keys_67 @ concat sup_cond_keys_68 @ concat sup_cond_keys_69 @
     concat sup_cond_keys_70 @ concat sup_cond_keys_71 @ concat sup_cond_keys_72 @
     concat sup_cond_keys_73 @ concat sup_cond_keys_74 @ concat sup_cond_keys_75 @
     concat sup_cond_keys_76 @ concat sup_cond_keys_77 @ concat sup_cond_keys_78 @
     concat sup_cond_keys_79 @ concat sup_cond_keys_80 @ concat sup_cond_keys_81 @
     concat sup_cond_keys_82 @ concat sup_cond_keys_83 @ concat sup_cond_keys_84 @
     concat sup_cond_keys_85 @ concat sup_cond_keys_86 @ concat sup_cond_keys_87 @
     concat sup_cond_keys_88 @ concat sup_cond_keys_89 @ concat sup_cond_keys_90 @
     concat sup_cond_keys_91 @ concat sup_cond_keys_92 @ concat sup_cond_keys_93 @
     concat sup_cond_keys_94 @ concat sup_cond_keys_95 @ concat sup_cond_keys_96"

lemma sup_cond_keys_1_length: "int (length (concat sup_cond_keys_1)) = 1200"
  unfolding rows_length sup_cond_keys_1_def by (simp only: row_arith)

lemma sup_cond_keys_2_length: "int (length (concat sup_cond_keys_2)) = 1200"
  unfolding rows_length sup_cond_keys_2_def by (simp only: row_arith)

lemma sup_cond_keys_3_length: "int (length (concat sup_cond_keys_3)) = 1200"
  unfolding rows_length sup_cond_keys_3_def by (simp only: row_arith)

lemma sup_cond_keys_4_length: "int (length (concat sup_cond_keys_4)) = 1200"
  unfolding rows_length sup_cond_keys_4_def by (simp only: row_arith)

lemma sup_cond_keys_5_length: "int (length (concat sup_cond_keys_5)) = 1200"
  unfolding rows_length sup_cond_keys_5_def by (simp only: row_arith)

lemma sup_cond_keys_6_length: "int (length (concat sup_cond_keys_6)) = 1200"
  unfolding rows_length sup_cond_keys_6_def by (simp only: row_arith)

lemma sup_cond_keys_7_length: "int (length (concat sup_cond_keys_7)) = 1200"
  unfolding rows_length sup_cond_keys_7_def by (simp only: row_arith)

lemma sup_cond_keys_8_length: "int (length (concat sup_cond_keys_8)) = 1200"
  unfolding rows_length sup_cond_keys_8_def by (simp only: row_arith)

lemma sup_cond_keys_9_length: "int (length (concat sup_cond_keys_9)) = 1200"
  unfolding rows_length sup_cond_keys_9_def by (simp only: row_arith)

lemma sup_cond_keys_10_length: "int (length (concat sup_cond_keys_10)) = 1200"
  unfolding rows_length sup_cond_keys_10_def by (simp only: row_arith)

lemma sup_cond_keys_11_length: "int (length (concat sup_cond_keys_11)) = 1200"
  unfolding rows_length sup_cond_keys_11_def by (simp only: row_arith)

lemma sup_cond_keys_12_length: "int (length (concat sup_cond_keys_12)) = 1200"
  unfolding rows_length sup_cond_keys_12_def by (simp only: row_arith)

lemma sup_cond_keys_13_length: "int (length (concat sup_cond_keys_13)) = 1200"
  unfolding rows_length sup_cond_keys_13_def by (simp only: row_arith)

lemma sup_cond_keys_14_length: "int (length (concat sup_cond_keys_14)) = 1200"
  unfolding rows_length sup_cond_keys_14_def by (simp only: row_arith)

lemma sup_cond_keys_15_length: "int (length (concat sup_cond_keys_15)) = 1200"
  unfolding rows_length sup_cond_keys_15_def by (simp only: row_arith)

lemma sup_cond_keys_16_length: "int (length (concat sup_cond_keys_16)) = 1200"
  unfolding rows_length sup_cond_keys_16_def by (simp only: row_arith)

lemma sup_cond_keys_17_length: "int (length (concat sup_cond_keys_17)) = 1200"
  unfolding rows_length sup_cond_keys_17_def by (simp only: row_arith)

lemma sup_cond_keys_18_length: "int (length (concat sup_cond_keys_18)) = 1200"
  unfolding rows_length sup_cond_keys_18_def by (simp only: row_arith)

lemma sup_cond_keys_19_length: "int (length (concat sup_cond_keys_19)) = 1200"
  unfolding rows_length sup_cond_keys_19_def by (simp only: row_arith)

lemma sup_cond_keys_20_length: "int (length (concat sup_cond_keys_20)) = 1200"
  unfolding rows_length sup_cond_keys_20_def by (simp only: row_arith)

lemma sup_cond_keys_21_length: "int (length (concat sup_cond_keys_21)) = 1200"
  unfolding rows_length sup_cond_keys_21_def by (simp only: row_arith)

lemma sup_cond_keys_22_length: "int (length (concat sup_cond_keys_22)) = 1200"
  unfolding rows_length sup_cond_keys_22_def by (simp only: row_arith)

lemma sup_cond_keys_23_length: "int (length (concat sup_cond_keys_23)) = 1200"
  unfolding rows_length sup_cond_keys_23_def by (simp only: row_arith)

lemma sup_cond_keys_24_length: "int (length (concat sup_cond_keys_24)) = 1200"
  unfolding rows_length sup_cond_keys_24_def by (simp only: row_arith)

lemma sup_cond_keys_25_length: "int (length (concat sup_cond_keys_25)) = 1200"
  unfolding rows_length sup_cond_keys_25_def by (simp only: row_arith)

lemma sup_cond_keys_26_length: "int (length (concat sup_cond_keys_26)) = 1200"
  unfolding rows_length sup_cond_keys_26_def by (simp only: row_arith)

lemma sup_cond_keys_27_length: "int (length (concat sup_cond_keys_27)) = 1200"
  unfolding rows_length sup_cond_keys_27_def by (simp only: row_arith)

lemma sup_cond_keys_28_length: "int (length (concat sup_cond_keys_28)) = 1200"
  unfolding rows_length sup_cond_keys_28_def by (simp only: row_arith)

lemma sup_cond_keys_29_length: "int (length (concat sup_cond_keys_29)) = 1200"
  unfolding rows_length sup_cond_keys_29_def by (simp only: row_arith)

lemma sup_cond_keys_30_length: "int (length (concat sup_cond_keys_30)) = 1200"
  unfolding rows_length sup_cond_keys_30_def by (simp only: row_arith)

lemma sup_cond_keys_31_length: "int (length (concat sup_cond_keys_31)) = 1200"
  unfolding rows_length sup_cond_keys_31_def by (simp only: row_arith)

lemma sup_cond_keys_32_length: "int (length (concat sup_cond_keys_32)) = 1200"
  unfolding rows_length sup_cond_keys_32_def by (simp only: row_arith)

lemma sup_cond_keys_33_length: "int (length (concat sup_cond_keys_33)) = 1200"
  unfolding rows_length sup_cond_keys_33_def by (simp only: row_arith)

lemma sup_cond_keys_34_length: "int (length (concat sup_cond_keys_34)) = 1200"
  unfolding rows_length sup_cond_keys_34_def by (simp only: row_arith)

lemma sup_cond_keys_35_length: "int (length (concat sup_cond_keys_35)) = 1200"
  unfolding rows_length sup_cond_keys_35_def by (simp only: row_arith)

lemma sup_cond_keys_36_length: "int (length (concat sup_cond_keys_36)) = 1200"
  unfolding rows_length sup_cond_keys_36_def by (simp only: row_arith)

lemma sup_cond_keys_37_length: "int (length (concat sup_cond_keys_37)) = 1200"
  unfolding rows_length sup_cond_keys_37_def by (simp only: row_arith)

lemma sup_cond_keys_38_length: "int (length (concat sup_cond_keys_38)) = 1200"
  unfolding rows_length sup_cond_keys_38_def by (simp only: row_arith)

lemma sup_cond_keys_39_length: "int (length (concat sup_cond_keys_39)) = 1200"
  unfolding rows_length sup_cond_keys_39_def by (simp only: row_arith)

lemma sup_cond_keys_40_length: "int (length (concat sup_cond_keys_40)) = 1200"
  unfolding rows_length sup_cond_keys_40_def by (simp only: row_arith)

lemma sup_cond_keys_41_length: "int (length (concat sup_cond_keys_41)) = 1200"
  unfolding rows_length sup_cond_keys_41_def by (simp only: row_arith)

lemma sup_cond_keys_42_length: "int (length (concat sup_cond_keys_42)) = 1200"
  unfolding rows_length sup_cond_keys_42_def by (simp only: row_arith)

lemma sup_cond_keys_43_length: "int (length (concat sup_cond_keys_43)) = 1200"
  unfolding rows_length sup_cond_keys_43_def by (simp only: row_arith)

lemma sup_cond_keys_44_length: "int (length (concat sup_cond_keys_44)) = 1200"
  unfolding rows_length sup_cond_keys_44_def by (simp only: row_arith)

lemma sup_cond_keys_45_length: "int (length (concat sup_cond_keys_45)) = 1200"
  unfolding rows_length sup_cond_keys_45_def by (simp only: row_arith)

lemma sup_cond_keys_46_length: "int (length (concat sup_cond_keys_46)) = 1200"
  unfolding rows_length sup_cond_keys_46_def by (simp only: row_arith)

lemma sup_cond_keys_47_length: "int (length (concat sup_cond_keys_47)) = 1200"
  unfolding rows_length sup_cond_keys_47_def by (simp only: row_arith)

lemma sup_cond_keys_48_length: "int (length (concat sup_cond_keys_48)) = 1200"
  unfolding rows_length sup_cond_keys_48_def by (simp only: row_arith)

lemma sup_cond_keys_49_length: "int (length (concat sup_cond_keys_49)) = 1200"
  unfolding rows_length sup_cond_keys_49_def by (simp only: row_arith)

lemma sup_cond_keys_50_length: "int (length (concat sup_cond_keys_50)) = 1200"
  unfolding rows_length sup_cond_keys_50_def by (simp only: row_arith)

lemma sup_cond_keys_51_length: "int (length (concat sup_cond_keys_51)) = 1200"
  unfolding rows_length sup_cond_keys_51_def by (simp only: row_arith)

lemma sup_cond_keys_52_length: "int (length (concat sup_cond_keys_52)) = 1200"
  unfolding rows_length sup_cond_keys_52_def by (simp only: row_arith)

lemma sup_cond_keys_53_length: "int (length (concat sup_cond_keys_53)) = 1200"
  unfolding rows_length sup_cond_keys_53_def by (simp only: row_arith)

lemma sup_cond_keys_54_length: "int (length (concat sup_cond_keys_54)) = 1200"
  unfolding rows_length sup_cond_keys_54_def by (simp only: row_arith)

lemma sup_cond_keys_55_length: "int (length (concat sup_cond_keys_55)) = 1200"
  unfolding rows_length sup_cond_keys_55_def by (simp only: row_arith)

lemma sup_cond_keys_56_length: "int (length (concat sup_cond_keys_56)) = 1200"
  unfolding rows_length sup_cond_keys_56_def by (simp only: row_arith)

lemma sup_cond_keys_57_length: "int (length (concat sup_cond_keys_57)) = 1200"
  unfolding rows_length sup_cond_keys_57_def by (simp only: row_arith)

lemma sup_cond_keys_58_length: "int (length (concat sup_cond_keys_58)) = 1200"
  unfolding rows_length sup_cond_keys_58_def by (simp only: row_arith)

lemma sup_cond_keys_59_length: "int (length (concat sup_cond_keys_59)) = 1200"
  unfolding rows_length sup_cond_keys_59_def by (simp only: row_arith)

lemma sup_cond_keys_60_length: "int (length (concat sup_cond_keys_60)) = 1200"
  unfolding rows_length sup_cond_keys_60_def by (simp only: row_arith)

lemma sup_cond_keys_61_length: "int (length (concat sup_cond_keys_61)) = 1200"
  unfolding rows_length sup_cond_keys_61_def by (simp only: row_arith)

lemma sup_cond_keys_62_length: "int (length (concat sup_cond_keys_62)) = 1200"
  unfolding rows_length sup_cond_keys_62_def by (simp only: row_arith)

lemma sup_cond_keys_63_length: "int (length (concat sup_cond_keys_63)) = 1200"
  unfolding rows_length sup_cond_keys_63_def by (simp only: row_arith)

lemma sup_cond_keys_64_length: "int (length (concat sup_cond_keys_64)) = 1200"
  unfolding rows_length sup_cond_keys_64_def by (simp only: row_arith)

lemma sup_cond_keys_65_length: "int (length (concat sup_cond_keys_65)) = 1200"
  unfolding rows_length sup_cond_keys_65_def by (simp only: row_arith)

lemma sup_cond_keys_66_length: "int (length (concat sup_cond_keys_66)) = 1200"
  unfolding rows_length sup_cond_keys_66_def by (simp only: row_arith)

lemma sup_cond_keys_67_length: "int (length (concat sup_cond_keys_67)) = 1200"
  unfolding rows_length sup_cond_keys_67_def by (simp only: row_arith)

lemma sup_cond_keys_68_length: "int (length (concat sup_cond_keys_68)) = 1200"
  unfolding rows_length sup_cond_keys_68_def by (simp only: row_arith)

lemma sup_cond_keys_69_length: "int (length (concat sup_cond_keys_69)) = 1200"
  unfolding rows_length sup_cond_keys_69_def by (simp only: row_arith)

lemma sup_cond_keys_70_length: "int (length (concat sup_cond_keys_70)) = 1200"
  unfolding rows_length sup_cond_keys_70_def by (simp only: row_arith)

lemma sup_cond_keys_71_length: "int (length (concat sup_cond_keys_71)) = 1200"
  unfolding rows_length sup_cond_keys_71_def by (simp only: row_arith)

lemma sup_cond_keys_72_length: "int (length (concat sup_cond_keys_72)) = 1200"
  unfolding rows_length sup_cond_keys_72_def by (simp only: row_arith)

lemma sup_cond_keys_73_length: "int (length (concat sup_cond_keys_73)) = 1200"
  unfolding rows_length sup_cond_keys_73_def by (simp only: row_arith)

lemma sup_cond_keys_74_length: "int (length (concat sup_cond_keys_74)) = 1200"
  unfolding rows_length sup_cond_keys_74_def by (simp only: row_arith)

lemma sup_cond_keys_75_length: "int (length (concat sup_cond_keys_75)) = 1200"
  unfolding rows_length sup_cond_keys_75_def by (simp only: row_arith)

lemma sup_cond_keys_76_length: "int (length (concat sup_cond_keys_76)) = 1200"
  unfolding rows_length sup_cond_keys_76_def by (simp only: row_arith)

lemma sup_cond_keys_77_length: "int (length (concat sup_cond_keys_77)) = 1200"
  unfolding rows_length sup_cond_keys_77_def by (simp only: row_arith)

lemma sup_cond_keys_78_length: "int (length (concat sup_cond_keys_78)) = 1200"
  unfolding rows_length sup_cond_keys_78_def by (simp only: row_arith)

lemma sup_cond_keys_79_length: "int (length (concat sup_cond_keys_79)) = 1200"
  unfolding rows_length sup_cond_keys_79_def by (simp only: row_arith)

lemma sup_cond_keys_80_length: "int (length (concat sup_cond_keys_80)) = 1200"
  unfolding rows_length sup_cond_keys_80_def by (simp only: row_arith)

lemma sup_cond_keys_81_length: "int (length (concat sup_cond_keys_81)) = 1200"
  unfolding rows_length sup_cond_keys_81_def by (simp only: row_arith)

lemma sup_cond_keys_82_length: "int (length (concat sup_cond_keys_82)) = 1200"
  unfolding rows_length sup_cond_keys_82_def by (simp only: row_arith)

lemma sup_cond_keys_83_length: "int (length (concat sup_cond_keys_83)) = 1200"
  unfolding rows_length sup_cond_keys_83_def by (simp only: row_arith)

lemma sup_cond_keys_84_length: "int (length (concat sup_cond_keys_84)) = 1200"
  unfolding rows_length sup_cond_keys_84_def by (simp only: row_arith)

lemma sup_cond_keys_85_length: "int (length (concat sup_cond_keys_85)) = 1200"
  unfolding rows_length sup_cond_keys_85_def by (simp only: row_arith)

lemma sup_cond_keys_86_length: "int (length (concat sup_cond_keys_86)) = 1200"
  unfolding rows_length sup_cond_keys_86_def by (simp only: row_arith)

lemma sup_cond_keys_87_length: "int (length (concat sup_cond_keys_87)) = 1200"
  unfolding rows_length sup_cond_keys_87_def by (simp only: row_arith)

lemma sup_cond_keys_88_length: "int (length (concat sup_cond_keys_88)) = 1200"
  unfolding rows_length sup_cond_keys_88_def by (simp only: row_arith)

lemma sup_cond_keys_89_length: "int (length (concat sup_cond_keys_89)) = 1200"
  unfolding rows_length sup_cond_keys_89_def by (simp only: row_arith)

lemma sup_cond_keys_90_length: "int (length (concat sup_cond_keys_90)) = 1200"
  unfolding rows_length sup_cond_keys_90_def by (simp only: row_arith)

lemma sup_cond_keys_91_length: "int (length (concat sup_cond_keys_91)) = 1200"
  unfolding rows_length sup_cond_keys_91_def by (simp only: row_arith)

lemma sup_cond_keys_92_length: "int (length (concat sup_cond_keys_92)) = 1200"
  unfolding rows_length sup_cond_keys_92_def by (simp only: row_arith)

lemma sup_cond_keys_93_length: "int (length (concat sup_cond_keys_93)) = 1200"
  unfolding rows_length sup_cond_keys_93_def by (simp only: row_arith)

lemma sup_cond_keys_94_length: "int (length (concat sup_cond_keys_94)) = 1200"
  unfolding rows_length sup_cond_keys_94_def by (simp only: row_arith)

lemma sup_cond_keys_95_length: "int (length (concat sup_cond_keys_95)) = 1200"
  unfolding rows_length sup_cond_keys_95_def by (simp only: row_arith)

lemma sup_cond_keys_96_length: "int (length (concat sup_cond_keys_96)) = 1139"
  unfolding rows_length sup_cond_keys_96_def by (simp only: row_arith)

lemma sup_cond_keys_length: "int (length sup_cond_keys) = 115139"
  by (simp only: sup_cond_keys_def length_append of_nat_add row_arith
      sup_cond_keys_1_length sup_cond_keys_2_length sup_cond_keys_3_length
      sup_cond_keys_4_length sup_cond_keys_5_length sup_cond_keys_6_length
      sup_cond_keys_7_length sup_cond_keys_8_length sup_cond_keys_9_length
      sup_cond_keys_10_length sup_cond_keys_11_length sup_cond_keys_12_length
      sup_cond_keys_13_length sup_cond_keys_14_length sup_cond_keys_15_length
      sup_cond_keys_16_length sup_cond_keys_17_length sup_cond_keys_18_length
      sup_cond_keys_19_length sup_cond_keys_20_length sup_cond_keys_21_length
      sup_cond_keys_22_length sup_cond_keys_23_length sup_cond_keys_24_length
      sup_cond_keys_25_length sup_cond_keys_26_length sup_cond_keys_27_length
      sup_cond_keys_28_length sup_cond_keys_29_length sup_cond_keys_30_length
      sup_cond_keys_31_length sup_cond_keys_32_length sup_cond_keys_33_length
      sup_cond_keys_34_length sup_cond_keys_35_length sup_cond_keys_36_length
      sup_cond_keys_37_length sup_cond_keys_38_length sup_cond_keys_39_length
      sup_cond_keys_40_length sup_cond_keys_41_length sup_cond_keys_42_length
      sup_cond_keys_43_length sup_cond_keys_44_length sup_cond_keys_45_length
      sup_cond_keys_46_length sup_cond_keys_47_length sup_cond_keys_48_length
      sup_cond_keys_49_length sup_cond_keys_50_length sup_cond_keys_51_length
      sup_cond_keys_52_length sup_cond_keys_53_length sup_cond_keys_54_length
      sup_cond_keys_55_length sup_cond_keys_56_length sup_cond_keys_57_length
      sup_cond_keys_58_length sup_cond_keys_59_length sup_cond_keys_60_length
      sup_cond_keys_61_length sup_cond_keys_62_length sup_cond_keys_63_length
      sup_cond_keys_64_length sup_cond_keys_65_length sup_cond_keys_66_length
      sup_cond_keys_67_length sup_cond_keys_68_length sup_cond_keys_69_length
      sup_cond_keys_70_length sup_cond_keys_71_length sup_cond_keys_72_length
      sup_cond_keys_73_length sup_cond_keys_74_length sup_cond_keys_75_length
      sup_cond_keys_76_length sup_cond_keys_77_length sup_cond_keys_78_length
      sup_cond_keys_79_length sup_cond_keys_80_length sup_cond_keys_81_length
      sup_cond_keys_82_length sup_cond_keys_83_length sup_cond_keys_84_length
      sup_cond_keys_85_length sup_cond_keys_86_length sup_cond_keys_87_length
      sup_cond_keys_88_length sup_cond_keys_89_length sup_cond_keys_90_length
      sup_cond_keys_91_length sup_cond_keys_92_length sup_cond_keys_93_length
      sup_cond_keys_94_length sup_cond_keys_95_length sup_cond_keys_96_length)

end
