(* ===== verification/Sip_Uri_Keys.thy ===== *)
theory Sip_Uri_Keys
  imports Ragel_Cond
begin

text \<open>
  The arrays \<open>cond_spaces\<close> and \<open>trans_keys\<close> of ext/sip_parser/sip_uri_parser.c.
\<close>

definition sup_cond_spaces_1 :: "int list list" where
  "sup_cond_spaces_1 =
    [[1, 1, 1, 1, 1, 1, 1, 1],
     [1, 1, 1, 1, 1, 2, 2, 2],
     [2, 1, 1, 2, 2, 2, 2, 1],
     [1, 1, 1, 1, 1, 1, 1, 1],
     [1, 1, 1, 1, 1, 1, 1, 1],
     [1, 1, 1, 1, 1, 1, 1, 1],
     [1, 1, 1, 1, 1, 1, 1, 1],
     [1, 1, 1, 1, 1, 1, 1, 1],
     [1, 1, 1, 1, 1, 1, 1, 1],
     [1, 1, 1, 1, 1, 1, 1, 1],
     [1, 1, 1, 1, 1, 1, 1, 1],
     [1, 1, 1, 1, 1, 1, 1, 1],
     [1, 1, 1, 1, 1, 1, 1, 1],
     [1, 1, 1, 1, 1, 1, 1, 1],
     [1, 1, 1, 1, 1, 1, 1, 1],
     [1, 1, 1, 1, 1, 1, 1, 1],
     [1, 1, 1, 1, 1, 1, 1, 1],
     [1, 1, 1, 1, 1, 1, 1, 1],
     [1, 1, 1, 1, 1, 1, 1, 1],
     [1, 1, 1, 1, 1, 1, 1, 1],
     [1, 1, 1, 1, 1, 1, 1, 1],
     [1, 1, 1, 1, 1, 1, 1, 1],
     [1, 1, 1, 1, 1, 1, 1, 1],
     [1, 1, 1, 1, 1, 1, 1, 1],
     [1, 1, 1, 1, 1, 1, 1, 1],
     [1, 1, 1, 1, 1, 1, 1, 1],
     [1, 1, 1, 1, 1, 1, 1, 1],
     [1, 1, 1, 1, 1, 1, 1, 1],
     [1, 1, 1, 1, 1, 1, 1, 1],
     [1, 1, 1, 1, 1, 1, 1, 1],
     [1, 1, 1, 1, 1, 1, 1, 1],
     [1, 1, 1, 1, 1, 1, 1, 1],
     [1, 1, 1, 1, 1, 1, 1, 1],
     [1, 1, 1, 1, 1, 1, 1, 1],
     [1, 1, 1, 1, 1, 1, 1, 1],
     [1, 1, 1, 1, 1, 1, 1, 1],
     [1, 1, 1, 1, 1, 1, 1, 1],
     [1, 1, 1, 1, 1, 1, 1, 1],
     [1, 1, 1, 1, 1, 1, 1, 1],
     [1, 1, 1, 1, 1, 1, 1, 1],
     [1, 1, 1, 1, 1, 1, 1, 1],
     [1, 1, 1, 1, 1, 1, 1, 1],
     [1, 1, 1, 1, 1, 1, 1, 1],
     [1, 1, 1, 1, 1, 1, 1, 1],
     [1, 1, 1, 1, 1, 1, 1, 1],
     [1, 1, 1, 1, 1, 1, 1, 1],
     [1, 1, 1, 1, 1, 1, 1, 1],
     [1, 1, 1, 1, 1, 1, 1, 1],
     [1, 1, 1, 1, 1, 1, 1, 1],
     [1, 1, 1, 1, 1, 1, 1, 1],
     [1, 1, 1, 1, 1, 1, 1, 1],
     [1, 1, 1, 1, 1, 1, 1, 1],
     [1, 1, 1, 1, 1, 1, 1, 1],
     [1, 1, 1, 1, 1, 1, 1, 1],
     [1, 1, 1, 1, 1, 1, 1, 1],
     [1, 1, 1, 1, 1, 1, 1, 1],
     [1, 1, 1, 1, 1, 1, 1, 1],
     [1, 1, 1, 1, 1, 1, 1, 1],
     [1, 1, 1, 1, 1, 1, 1, 1],
     [1, 1, 1, 1, 1, 1, 1, 1],
     [1, 1, 1, 1, 1, 1, 1, 1],
     [1, 1, 1, 1, 1, 1, 1, 1],
     [1, 1, 1, 1, 1, 1, 1, 1],
     [1, 1, 1, 1, 1, 1, 1, 1],
     [1, 1, 1, 1, 1, 1, 1, 1],
     [1, 1, 1, 1, 1, 1, 1, 1],
     [1, 1, 1, 1, 1, 1, 1, 1],
     [1, 1, 1, 1, 1, 1, 1, 1],
     [1, 1, 1, 1, 1, 1, 1, 1],
     [1, 1, 1, 1, 1, 1, 1, 1],
     [1, 1, 1, 1, 1, 1, 1, 1],
     [1, 1, 1, 1, 1, 1, 1, 1],
     [1, 1, 1, 1, 1, 1, 1, 1],
     [1, 1, 1, 1, 1, 1, 1, 1],
     [1, 1, 1, 1, 1, 1, 1, 1],
     [1, 1, 1, 1, 1, 1, 1, 1],
     [1, 1, 1, 1, 1, 1, 1, 1],
     [1, 1, 1, 1, 1, 1, 1, 1],
     [1, 1, 1, 1, 1, 1, 1, 1],
     [1, 1, 1, 1, 1, 1, 1, 1],
     [1, 1, 1, 1, 1, 1, 1, 1],
     [1, 1, 1, 1, 1, 1, 1, 1],
     [1, 1, 1, 1, 1, 1, 1, 1],
     [1, 1, 1, 1, 1, 1, 1, 1],
     [1, 1, 1, 1, 1, 1, 1, 1],
     [1, 1, 1, 1, 1, 1, 1, 1],
     [1, 1, 1, 1, 1, 1, 1, 1],
     [1, 1, 1, 1, 1, 1, 1, 1],
     [1, 1, 1, 1, 1, 1, 1, 1],
     [1, 1, 1, 1, 1, 1, 1, 1],
     [1, 1, 1, 1, 1, 1, 1, 1],
     [1, 1, 1, 1, 1, 1, 1, 1],
     [1, 1, 1, 1, 1, 1, 1, 1],
     [1, 1, 1, 1, 1, 1, 1, 1],
     [1, 1, 1, 1, 1, 1, 1, 1],
     [1, 1, 1, 1, 1, 1, 1, 1],
     [1, 1, 1, 1, 1, 1, 1, 1],
     [1, 1, 1, 1, 1, 1, 1, 1],
     [1, 1, 1, 1, 1, 1, 1, 1],
     [1, 1, 1, 1, 1, 1, 1, 1],
     [1, 1, 1, 1, 1, 1, 1, 1],
     [1, 1, 1, 1, 1, 1, 1, 1],
     [1, 1, 1, 1, 1, 1, 1, 1],
     [1, 1, 1, 1, 1, 1, 1, 1],
     [1, 1, 1, 1, 1, 1, 1, 1],
     [1, 1, 1, 1, 1, 1, 1, 1],
     [1, 1, 1, 1, 1, 1, 1, 1],
     [1, 1, 1, 1, 1, 1, 1, 1],
     [1, 1, 1, 1, 1, 1, 1, 1],
     [1, 1, 1, 1, 1, 1, 1, 1],
     [1, 1, 1, 1, 1, 1, 1, 1],
     [1, 1, 1, 1, 1, 1, 1, 1],
     [1, 1, 1, 1, 1, 1, 1, 1],
     [1, 1, 1, 1, 1, 1, 1, 1],
     [1, 1, 1, 1, 1, 1, 1, 1],
     [1, 1, 1, 1, 1, 1, 1, 1],
     [1, 1, 1, 1, 1, 1, 1, 1],
     [1, 1, 1, 1, 1, 1, 1, 1],
     [1, 1, 1, 1, 1, 1, 1, 1],
     [1, 1, 1, 1, 1, 1, 1, 1],
     [1, 1, 1, 1, 1, 1, 1, 1],
     [1, 1, 1, 1, 1, 1, 1, 1],
     [1, 1, 1, 1, 1, 1, 1, 1],
     [1, 1, 1, 1, 1, 1, 1, 1],
     [1, 1, 1, 1, 1, 1, 1, 1],
     [1, 1, 1, 1, 1, 1, 1, 1],
     [1, 1, 1, 1, 1, 1, 1, 1],
     [1, 1, 1, 1, 1, 1, 1, 1],
     [1, 1, 1, 1, 1, 1, 1, 1],
     [1, 1, 1, 1, 1, 1, 1, 1],
     [1, 1, 1, 1, 1, 1, 1, 1],
     [1, 1, 1, 1, 1, 1, 1, 1],
     [1, 1, 1, 1, 1, 1, 1, 1],
     [1, 1, 1, 1, 1, 1, 1, 1],
     [1, 1, 1, 1, 1, 1, 1, 1],
     [1, 1, 1, 1, 1, 1, 1, 1],
     [1, 1, 1, 1, 1, 1, 1, 1],
     [1, 1, 1, 1, 1, 1, 1, 1],
     [1, 1, 1, 1, 1, 1, 1, 1],
     [1, 1, 1, 1, 1, 1, 1, 1],
     [1, 1, 1, 1, 1, 1, 1, 1],
     [1, 1, 1, 1, 1, 1, 1, 1],
     [1, 1, 1, 1, 1, 1, 1, 1],
     [1, 1, 1, 1, 1, 1, 1, 1],
     [1, 1, 1, 1, 1, 1, 1, 1],
     [1, 1, 1, 1, 1, 1, 1, 1],
     [1, 1, 1, 1, 1, 1, 1, 1],
     [1, 1, 1, 1, 1, 1, 1, 1],
     [1, 1, 1, 1, 1, 1, 1, 1],
     [1, 1, 1, 1, 1, 1, 1, 1]]"

definition sup_cond_spaces_2 :: "int list list" where
  "sup_cond_spaces_2 =
    [[1, 1, 1, 1, 1, 1, 1, 1],
     [1, 1, 1, 1, 1, 1, 1, 1],
     [1, 1, 1, 1, 1, 1, 1, 1],
     [1, 1, 1, 1, 1, 1, 1, 1],
     [1, 1, 1, 1, 1, 1, 1, 1],
     [1, 1, 1, 1, 1, 1, 1, 1],
     [1, 1, 1, 1, 1, 1, 1, 1],
     [1, 1, 1, 1, 1, 1, 1, 1],
     [1, 1, 1, 1, 1, 1, 1, 1],
     [1, 1, 1, 1, 1, 1, 1, 1],
     [1, 1, 1, 1, 1, 1, 1, 1],
     [1, 1, 1, 1, 1, 1, 1, 1],
     [1, 1, 1, 1, 1, 1, 1, 1],
     [1, 1, 1, 1, 1, 1, 1, 1],
     [1, 1, 1, 1, 1, 1, 1, 1],
     [1, 1, 1, 1, 1, 1, 1, 1],
     [1, 1, 1, 1, 1, 1, 1, 1],
     [1, 1, 1, 1, 1, 1, 1, 1],
     [1, 1, 1, 1, 1, 1, 1, 1],
     [1, 1, 1, 1, 1, 1, 1, 1],
     [1, 1, 1, 1, 1, 1, 1, 1],
     [1, 1, 1, 1, 1, 1, 1, 1],
     [1, 1, 1, 1, 1, 1, 1, 1],
     [1, 1, 1, 1, 1, 1, 1, 1],
     [1, 1, 1, 1, 1, 1, 1, 1],
     [1, 1, 1, 1, 1, 1, 1, 1],
     [1, 1, 1, 1, 1, 1, 1, 1],
     [1, 1, 1, 1, 1, 1, 1, 1],
     [1, 1, 1, 1, 1, 1, 1, 1],
     [1, 1, 1, 1, 1, 1, 1, 1],
     [1, 1, 1, 1, 1, 1, 1, 1],
     [1, 1, 1, 1, 1, 1, 1, 1],
     [1, 1, 1, 1, 1, 1, 1, 1],
     [1, 1, 1, 1, 1, 1, 1, 1],
     [1, 1, 1, 1, 1, 1, 1, 1],
     [1, 1, 1, 1, 1, 1, 1, 1],
     [1, 1, 1, 1, 1, 1, 1, 1],
     [1, 1, 1, 1, 1, 1, 1, 1],
     [1, 1, 1, 1, 1, 1, 1, 1],
     [1, 1, 1, 1, 1, 1, 1, 1],
     [1, 1, 1, 1, 1, 1, 1, 1],
     [1, 1, 1, 1, 1, 1, 1, 1],
     [1, 1, 1, 1, 1, 1, 1, 1],
     [1, 1, 1, 1, 1, 1, 1, 1],
     [1, 1, 1, 1, 1, 1, 1, 1],
     [1, 1, 1, 1, 1, 1, 1, 1],
     [1, 1, 1, 1, 1, 1, 1, 1],
     [1, 1, 1, 1, 1, 1, 1, 1],
     [1, 1, 1, 1, 1, 1, 1, 1],
     [1, 1, 1, 1, 1, 1, 1, 1],
     [1, 1, 1, 1, 1, 1, 1, 1],
     [1, 1, 1, 1, 1, 1, 1, 1],
     [1, 1, 1, 1, 1, 1, 1, 1],
     [1, 1, 1, 1, 1, 1, 1, 1],
     [1, 1, 1, 1, 1, 1, 1, 1],
     [1, 1, 1, 1, 1, 1, 1, 1],
     [1, 1, 1, 1, 1, 1, 1, 1],
     [1, 1, 1, 1, 1, 1, 1, 1],
     [1, 1, 1, 1, 1, 1, 1, 1],
     [1, 1, 1, 1, 1, 1, 1, 1],
     [1, 1, 1, 1, 1, 1, 1, 1],
     [1, 1, 1, 1, 1, 1, 1, 1],
     [1, 1, 1, 1, 1, 1, 1, 1],
     [1, 1, 1, 1, 1, 1, 1, 1],
     [1, 1, 1, 1, 1, 1, 1, 1],
     [1, 1, 1, 1, 1, 1, 1, 1],
     [1, 1, 1, 1, 1, 1, 1, 1],
     [1, 1, 1, 1, 1, 1, 1, 1],
     [1, 1, 1, 1, 1, 1, 1, 1],
     [1, 1, 1, 1, 1, 1, 1, 1],
     [1, 1, 1, 1, 1, 1, 1, 1],
     [1, 1, 1, 1, 1, 1, 1, 1],
     [1, 1, 1, 1, 1, 1, 1, 1],
     [1, 1, 1, 1, 1, 1, 1, 1],
     [1, 1, 1, 1, 1, 1, 1, 1],
     [1, 1, 1, 1, 1, 1, 1, 1],
     [1, 1, 1, 1, 1, 1, 1, 1],
     [1, 1, 1, 1, 1, 1, 1, 1],
     [1, 1, 1, 1, 1, 1, 1, 1],
     [1, 1, 1, 1, 1, 1, 1, 1],
     [1, 1, 1, 1, 1, 1, 1, 1],
     [1, 1, 1, 1, 1, 1, 1, 1],
     [1, 1, 1, 1, 1, 1, 1, 1],
     [1, 1, 1, 1, 1, 1, 1, 1],
     [1, 1, 1, 1, 1, 1, 1, 1],
     [1, 1, 1, 1, 1, 1, 1, 1],
     [1, 1, 1, 1, 1, 1, 1, 1],
     [1, 1, 1, 1, 1, 1, 1, 1],
     [1, 1, 1, 1, 1, 1, 1, 1],
     [1, 1, 1, 1, 1, 1, 1, 1],
     [1, 1, 1, 1, 1, 1, 1, 1],
     [1, 1, 1, 1, 1, 1, 1, 1],
     [1, 1, 1, 1, 1, 1, 1, 1],
     [1, 1, 1, 1, 1, 1, 1, 1],
     [1, 1, 1, 1, 1, 1, 1, 1],
     [1, 1, 1, 1, 1, 1, 1, 1],
     [1, 1, 1, 1, 1, 1, 1, 1],
     [1, 1, 1, 1, 1, 1, 1, 1],
     [1, 1, 1, 1, 1, 1, 1, 1],
     [1, 1, 1, 1, 1, 1, 1, 1],
     [1, 1, 1, 1, 1, 1, 1, 1],
     [1, 1, 1, 1, 1, 1, 1, 1],
     [1, 1, 1, 1, 1, 1, 1, 1],
     [1, 1, 1, 1, 1, 1, 1, 1],
     [1, 1, 1, 1, 1, 1, 1, 1],
     [1, 1, 1, 1, 1, 1, 1, 1],
     [1, 1, 1, 1, 1, 1, 1, 1],
     [1, 1, 1, 1, 1, 1, 1, 1],
     [1, 1, 1, 1, 1, 1, 1, 1],
     [1, 1, 1, 1, 1, 1, 1, 1],
     [1, 1, 1, 1, 1, 1, 1, 1],
     [1, 1, 1, 1, 1, 1, 1, 1],
     [1, 1, 1, 1, 1, 1, 1, 1],
     [1, 1, 1, 1, 1, 1, 1, 1],
     [1, 1, 1, 1, 1, 1, 1, 1],
     [1, 1, 1, 1, 1, 1, 1, 1],
     [1, 1, 1, 1, 1, 1, 1, 1],
     [1, 1, 1, 1, 1, 1, 1, 1],
     [1, 1, 1, 1, 1, 1, 1, 1],
     [1, 1, 1, 1, 1, 1, 1, 1],
     [1, 1, 1, 1, 1, 1, 1, 1],
     [1, 1, 1, 1, 1, 1, 1, 1],
     [1, 1, 1, 1, 1, 1, 1, 1],
     [1, 1, 1, 1, 1, 1, 1, 1],
     [1, 1, 1, 1, 1, 1, 1, 1],
     [1, 1, 1, 1, 1, 1, 1, 1],
     [1, 1, 1, 1, 1, 1, 1, 1],
     [1, 1, 1, 1, 1, 1, 1, 1],
     [1, 1, 1, 1, 1, 1, 1, 1],
     [1, 1, 1, 1, 1, 1, 1, 1],
     [1, 1, 1, 1, 1, 1, 1, 1],
     [1, 1, 1, 1, 1, 1, 1, 1],
     [1, 1, 1, 1, 1, 1, 1, 1],
     [1, 1, 1, 1, 1, 1, 1, 1],
     [1, 1, 1, 1, 1, 1, 1, 1],
     [1, 1, 1, 1, 1, 1, 1, 1],
     [1, 1, 1, 1, 1, 1, 1, 1],
     [1, 1, 1, 1, 1, 1, 1, 1],
     [1, 1, 1, 1, 1, 1, 1, 1],
     [1, 1, 1, 1, 1, 1, 1, 1],
     [1, 1, 1, 1, 1, 1, 1, 1],
     [1, 1, 1, 1, 1, 1, 1, 1],
     [1, 1, 1, 1, 1, 1, 1, 1],
     [1, 1, 1, 1, 1, 1, 1, 1],
     [1, 1, 1, 1, 1, 1, 1, 1],
     [1, 1, 1, 1, 1, 1, 1, 1],
     [1, 1, 1, 1, 1, 1, 1, 1],
     [1, 1, 1, 1, 1, 1, 1, 1],
     [1, 1, 1, 1, 1, 1, 1, 1],
     [1, 1, 1, 1, 1, 1, 1, 1]]"

definition sup_cond_spaces_3 :: "int list list" where
  "sup_cond_spaces_3 =
    [[1, 1, 1, 1, 1, 1, 1, 1],
     [1, 1, 1, 1, 1, 1, 1, 1],
     [1, 1, 1, 1, 1, 1, 1, 1],
     [1, 1, 1, 1, 1, 1, 1, 1],
     [1, 1, 1, 1, 1, 1, 1, 1],
     [1, 1, 1, 1, 1, 1, 1, 1],
     [1, 1, 1, 1, 1, 1, 1, 1],
     [1, 1, 1, 1, 1, 1, 1, 1],
     [1, 1, 1, 1, 1, 1, 1, 1],
     [1, 1, 1, 1, 1, 1, 1, 1],
     [1, 1, 1, 1, 1, 1, 1, 1],
     [1, 1, 1, 1, 1, 1, 1, 1],
     [1, 1, 1, 1, 1, 1, 1, 1],
     [1, 1, 1, 1, 1, 1, 1, 1],
     [1, 1, 1, 1, 1, 1, 1, 1],
     [1, 1, 1, 1, 1, 1, 1, 1],
     [1, 1, 1, 1, 1, 1, 1, 1],
     [1, 1, 1, 1, 1, 1, 1, 1],
     [1, 1, 1, 1, 1, 1, 1, 1],
     [1, 1, 1, 1, 1, 1, 1, 1],
     [1, 1, 1, 1, 1, 1, 1, 1],
     [1, 1, 1, 1, 1, 1, 1, 1],
     [1, 1, 1, 1, 1, 1, 1, 1],
     [1, 1, 1, 1, 1, 1, 1, 1],
     [1, 1, 1, 1, 1, 1, 1, 1],
     [1, 1, 1, 1, 1, 1, 1, 1],
     [1, 1, 1, 1, 1, 1, 1, 1],
     [1, 1, 1, 1, 1, 1, 1, 1],
     [1, 1, 1, 1, 1, 1, 1, 1],
     [1, 1, 1, 1, 1, 1, 1, 1],
     [1, 1, 1, 1, 1, 1, 1, 1],
     [1, 1, 1, 1, 1, 1, 1, 1],
     [1, 1, 1, 1, 1, 1, 1, 1],
     [1, 1, 1, 1, 1, 1, 1, 1],
     [1, 1, 1, 1, 1, 1, 1, 1],
     [1, 1, 1, 1, 1, 1, 1, 1],
     [1, 1, 1, 1, 1, 1, 1, 1],
     [1, 1, 1, 1, 1, 1, 1, 1],
     [1, 1, 1, 1, 1, 1, 1, 1],
     [1, 1, 1, 1, 1, 1, 1, 1],
     [1, 1, 1, 1, 1, 1, 1, 1],
     [1, 1, 1, 1, 1, 1, 1, 1],
     [1, 1, 1, 1, 1, 1, 1, 1],
     [1, 1, 1, 1, 1, 1, 1, 1],
     [1, 1, 1, 1, 1, 1, 1, 1],
     [1, 1, 1, 1, 1, 1, 1, 1],
     [1, 1, 1, 1, 1, 1, 1, 1],
     [1, 1, 1, 1, 1, 1, 1, 1],
     [1, 1, 1, 1, 1, 1, 1, 1],
     [1, 1, 1, 1, 1, 1, 1, 1],
     [1, 1, 1, 1, 1, 1, 1, 1],
     [1, 1, 1, 1, 1, 1, 1, 1],
     [1, 1, 1, 1, 1, 1, 1, 1],
     [1, 1, 1, 1, 1, 1, 1, 1],
     [1, 1, 1, 1, 1, 1, 1, 1],
     [1, 1, 1, 1, 1, 1, 1, 1],
     [1, 1, 1, 1, 1, 1, 1, 1],
     [1, 1, 1, 1, 1, 1, 1, 1],
     [1, 1, 1, 1, 1, 1, 1, 1],
     [1, 1, 1, 1, 1, 1, 1, 1],
     [1, 1, 1, 1, 1, 1, 1, 1],
     [1, 1, 1, 1, 1, 1, 1, 1],
     [1, 1, 1, 1, 1, 1, 1, 1],
     [1, 1, 1, 1, 1, 1, 1, 1],
     [1, 1, 1, 1, 1, 1, 1, 1],
     [1, 1, 1, 1, 1, 1, 1, 1],
     [1, 1, 1, 1, 1, 1, 1, 1],
     [1, 1, 1, 1, 1, 1, 1, 1],
     [1, 1, 1, 1, 1, 1, 1, 1],
     [1, 1, 1, 1, 1, 1, 1, 1],
     [1, 1, 1, 1, 1, 1, 1, 1],
     [1, 1, 1, 1, 1, 1, 1, 1],
     [1, 1, 1, 1, 1, 1, 1, 1],
     [1, 1, 1, 1, 1, 1, 1, 1],
     [1, 1, 1, 1, 1, 1, 1, 1],
     [1, 1, 1, 1, 1, 1, 1, 1],
     [1, 1, 1, 1, 1, 1, 1, 1],
     [1, 1, 1, 1, 1, 1, 1, 1],
     [1, 1, 1, 1, 1, 1, 1, 1],
     [1, 1, 1, 1, 1, 1, 1, 1],
     [1, 1, 1, 1, 1, 1, 1, 1],
     [1, 1, 1, 1, 1, 1, 1, 1],
     [1, 1, 1, 1, 1, 1, 1, 1],
     [1, 1, 1, 1, 1, 1, 1, 1],
     [1, 1, 1, 1, 1, 1, 1, 1],
     [1, 1, 1, 1, 1, 1, 1, 1],
     [1, 1, 1, 1, 1, 1, 1, 1],
     [1, 1, 1, 1, 1, 1, 1, 1],
     [1, 1, 1, 1, 1, 1, 1, 1],
     [1, 1, 1, 1, 1, 1, 1, 1],
     [1, 1, 1, 1, 1, 1, 1, 1],
     [1, 1, 1, 1, 1, 1, 1, 1],
     [1, 1, 1, 1, 1, 1, 1, 1],
     [1, 1, 1, 1, 1, 1, 1, 1],
     [1, 1, 1, 1, 1, 1, 1, 1],
     [1, 1, 1, 1, 1, 1, 1, 1],
     [1, 1, 1, 1, 1, 1, 1, 1],
     [1, 1, 1, 1, 1, 1, 1, 1],
     [1, 1, 1, 1, 1, 1, 1, 1],
     [1, 1, 1, 1, 1, 1, 1, 1],
     [1, 1, 1, 1, 1, 1, 1, 1],
     [1, 1, 1, 1, 1, 1, 1, 1],
     [1, 1, 1, 1, 1, 1, 1, 1],
     [1, 1, 1, 1, 1, 1, 1, 1],
     [1, 1, 1, 1, 1, 1, 1, 1],
     [1, 1, 1, 1, 1, 1, 1, 1],
     [1, 1, 1, 1, 1, 1, 1, 1],
     [1, 1, 1, 1, 1, 1, 1, 1],
     [1, 1, 1, 1, 1, 1, 1, 1],
     [1, 1, 1, 1, 1, 1, 1, 1],
     [1, 1, 1, 1, 1, 1, 1, 1],
     [1, 1, 1, 1, 1, 1, 1, 1],
     [1, 1, 1, 1, 1, 1, 1, 1],
     [1, 1, 1, 1, 1, 1, 1, 1],
     [1, 1, 1, 1, 1, 1, 1, 1],
     [1, 1, 1, 1, 1, 1, 1, 1],
     [1, 1, 1, 1, 1, 1, 1, 1],
     [1, 1, 1, 1, 1, 1, 1, 1],
     [1, 1, 1, 1, 1, 1, 1, 1],
     [1, 1, 1, 1, 1, 1, 1, 1],
     [1, 1, 1, 1, 1, 1, 1, 1],
     [1, 1, 1, 1, 1, 1, 1, 1],
     [1, 1, 1, 1, 1, 1, 1, 1],
     [1, 1, 1, 1, 1, 1, 1, 1],
     [1, 1, 1, 1, 1, 1, 1, 1],
     [1, 1, 1, 1, 1, 1, 1, 1],
     [1, 1, 1, 1, 1, 1, 1, 1],
     [1, 1, 1, 1, 1, 1, 1, 1],
     [1, 1, 1, 1, 1, 1, 1, 1],
     [1, 1, 1, 1, 1, 1, 1, 1],
     [1, 1, 1, 1, 1, 1, 1, 1],
     [1, 1, 1, 1, 1, 1, 1, 1],
     [1, 1, 1, 1, 1, 1, 1, 1],
     [1, 1, 1, 1, 1, 1, 1, 1],
     [1, 1, 1, 1, 1, 1, 1, 1],
     [1, 1, 1, 1, 1, 1, 1, 1],
     [1, 1, 1, 1, 1, 1, 1, 1],
     [1, 1, 1, 1, 1, 1, 1, 1],
     [1, 1, 1, 1, 1, 1, 1, 1],
     [1, 1, 1, 1, 1, 1, 1, 1],
     [1, 1, 1, 1, 1, 1, 1, 1],
     [1, 1, 1, 1, 1, 1, 1, 1],
     [1, 1, 1, 1, 1, 1, 1, 1],
     [1, 1, 1, 1, 1, 1, 1, 1],
     [1, 1, 1, 1, 1, 1, 1, 1],
     [1, 1, 1, 1, 1, 1, 1, 1],
     [1, 1, 1, 1, 1, 1, 1, 1],
     [1, 1, 1, 1, 1, 1, 1, 1],
     [1, 1, 1, 1, 1, 1, 1, 1],
     [1, 1, 1, 1, 1, 1, 1, 1]]"

definition sup_cond_spaces_4 :: "int list list" where
  "sup_cond_spaces_4 =
    [[1, 1, 1, 1, 1, 1, 1, 1],
     [1, 1, 1, 1, 1, 1, 1, 1],
     [1, 1, 1, 1, 1, 1, 1, 1],
     [1, 1, 1, 1, 1, 1, 1, 1],
     [1, 1, 1, 1, 1, 1, 1, 1],
     [1, 1, 1, 1, 1, 1, 1, 1],
     [1, 1, 1, 1, 1, 1, 1, 1],
     [1, 1, 1, 1, 1, 1, 1, 1],
     [1, 1, 1, 1, 1, 1, 1, 1],
     [1, 1, 1, 1, 1, 1, 1, 1],
     [1, 1, 1, 1, 1, 1, 1, 1],
     [1, 1, 1, 1, 1, 1, 1, 1],
     [1, 1, 1, 1, 1, 1, 1, 1],
     [1, 1, 1, 1, 1, 1, 1, 1],
     [1, 1, 1, 1, 1, 1, 1, 1],
     [1, 1, 1, 1, 1, 1, 1, 1],
     [1, 1, 1, 1, 1, 1, 1, 1],
     [1, 1, 1, 1, 1, 1, 1, 1],
     [1, 1, 1, 1, 1, 1, 1, 1],
     [1, 1, 1, 1, 1, 1, 1, 1],
     [1, 1, 1, 1, 1, 1, 1, 1],
     [1, 1, 1, 1, 1, 1, 1, 1],
     [1, 1, 1, 1, 1, 1, 1, 1],
     [1, 1, 1, 1, 1, 1, 1, 1],
     [1, 1, 1, 1, 1, 1, 1, 1],
     [1, 1, 1, 1, 1, 1, 1, 1],
     [1, 1, 1, 1, 1, 1, 1, 1],
     [1, 1, 1, 1, 1, 1, 1, 1],
     [1, 1, 1, 1, 1, 1, 1, 1],
     [1, 1, 1, 1, 1, 1, 1, 1],
     [1, 1, 1, 1, 1, 1, 1, 1],
     [1, 1, 1, 1, 1, 1, 1, 1],
     [1, 1, 1, 1, 1, 1, 1, 1],
     [1, 1, 1, 1, 1, 1, 1, 1],
     [1, 1, 1, 1, 1, 1, 1, 1],
     [1, 1, 1, 1, 1, 1, 1, 1],
     [1, 1, 1, 1, 1, 1, 1, 1],
     [1, 1, 1, 1, 1, 1, 1, 1],
     [1, 1, 1, 1, 1, 1, 1, 1],
     [1, 1, 1, 1, 1, 1, 1, 1],
     [1, 1, 1, 1, 1, 1, 1, 1],
     [1, 1, 1, 1, 1, 1, 1, 1],
     [1, 1, 1, 1, 1, 1, 1, 1],
     [1, 1, 1, 1, 1, 1, 1, 1],
     [1, 1, 1, 1, 1, 1, 1, 1],
     [1, 1, 1, 1, 1, 1, 1, 1],
     [1, 1, 1, 1, 1, 1, 1, 1],
     [1, 1, 1, 1, 1, 1, 1, 1],
     [1, 1, 1, 1, 1, 1, 1, 1],
     [1, 1, 1, 1, 1, 1, 1, 1],
     [1, 1, 1, 1, 1, 1, 1, 1],
     [1, 1, 1, 1, 1, 1, 1, 1],
     [1, 1, 1, 1, 1, 1, 1, 1],
     [1, 1, 1, 1, 1, 1, 1, 1],
     [1, 1, 1, 1, 1, 1, 1, 1],
     [1, 1, 1, 1, 1, 1, 1, 1],
     [1, 1, 1, 1, 1, 1, 1, 1],
     [1, 1, 1, 1, 1, 1, 1, 1],
     [1, 1, 1, 1, 1, 1, 1, 1],
     [1, 1, 1, 1, 1, 1, 1, 1],
     [1, 1, 1, 1, 1, 1, 1, 1],
     [1, 1, 1, 1, 1, 1, 1, 1],
     [1, 1, 1, 1, 1, 1, 1, 1],
     [1, 1, 1, 1, 1, 1, 1, 1],
     [1, 1, 1, 1, 1, 1, 1, 1],
     [1, 1, 1, 1, 1, 1, 1, 1],
     [1, 1, 1, 1, 1, 1, 1, 1],
     [1, 1, 1, 1, 1, 1, 1, 1],
     [1, 1, 1, 1, 1, 1, 1, 1],
     [1, 1, 1, 1, 1, 1, 1, 1],
     [1, 1, 1, 1, 1, 1, 1, 1],
     [1, 1, 1, 1, 1, 1, 1, 1],
     [1, 1, 1, 1, 1, 1, 1, 1],
     [1, 1, 1, 1, 1, 1, 1, 1],
     [1, 1, 1, 1, 1, 1, 1, 1],
     [1, 1, 1, 1, 1, 1, 1, 1],
     [1, 1, 1, 1, 1, 1, 1, 1],
     [1, 1, 1, 1, 1, 1, 1, 1],
     [1, 1, 1, 1, 1, 1, 1, 1],
     [1, 1, 1, 1, 1, 1, 1, 1],
     [1, 1, 1, 1, 1, 1, 1, 1],
     [1, 1, 1, 1, 1, 1, 1, 1],
     [1, 1, 1, 1, 1, 1, 1, 1],
     [1, 1, 1, 1, 1, 1, 1, 1],
     [1, 1, 1, 1, 1, 1, 1, 1],
     [1, 1, 1, 1, 1, 1, 1, 1],
     [1, 1, 1, 1, 1, 1, 1, 1],
     [1, 1, 1, 1, 1, 1, 1, 1],
     [1, 1, 1, 1, 1, 1, 1, 1],
     [1, 1, 1, 1, 1, 1, 1, 1],
     [1, 1, 1, 1, 1, 1, 1, 1],
     [1, 1, 1, 1, 1, 1, 1, 1],
     [1, 1, 1, 1, 1, 1, 1, 1],
     [1, 1, 1, 1, 1, 1, 1, 1],
     [1, 1, 1, 1, 1, 1, 1, 1],
     [1, 1, 1, 1, 1, 1, 1, 1],
     [1, 1, 1, 1, 1, 1, 1, 1],
     [1, 1, 1, 1, 1, 1, 1, 1],
     [1, 1, 1, 1, 1, 1, 1, 1],
     [1, 1, 1, 1, 1, 1, 1, 1],
     [1, 1, 1, 1, 1, 1, 1, 1],
     [1, 1, 1, 1, 1, 1, 1, 1],
     [1, 1, 1, 1, 1, 1, 1, 1],
     [1, 1, 1, 1, 1, 1, 1, 1],
     [1, 1, 1, 1, 1, 1, 1, 1],
     [1, 1, 1, 1, 1, 1, 1, 1],
     [1, 1, 1, 1, 1, 1, 1, 1],
     [1, 1, 1, 1, 1, 1, 1, 1],
     [1, 1, 1, 1, 1, 1, 1, 1],
     [1, 1, 1, 1, 1, 1, 1, 1],
     [1, 1, 1, 1, 1, 1, 1, 1],
     [1, 1, 1, 1, 1, 1, 1, 1],
     [1, 1, 1, 1, 1, 1, 1, 1],
     [1, 1, 1, 1, 1, 1, 1, 1],
     [1, 1, 1, 1, 1, 1, 1, 1],
     [1, 1, 1, 1, 1, 1, 1, 1],
     [1, 1, 1, 1, 1, 1, 1, 1],
     [1, 1, 1, 1, 1, 1, 1, 1],
     [1, 1, 1, 1, 1, 1, 1, 1],
     [1, 1, 1, 1, 1, 1, 1, 1],
     [1, 1, 1, 1, 1, 1, 1, 1],
     [1, 1, 1, 1, 1, 1, 1, 1],
     [1, 1, 1, 1, 1, 1, 1, 1],
     [1, 1, 1, 1, 1, 1, 1, 1],
     [1, 1, 1, 1, 1, 1, 1, 1],
     [1, 1, 1, 1, 1, 1, 1, 1],
     [1, 1, 1, 1, 1, 1, 1, 1],
     [1, 1, 1, 1, 1, 1, 1, 1],
     [1, 1, 1, 1, 1, 1, 1, 1],
     [1, 1, 1, 1, 1, 1, 1, 1],
     [1, 1, 1, 1, 1, 1, 1, 1],
     [1, 1, 1, 1, 1, 1, 1, 1],
     [1, 1, 1, 1, 1, 1, 1, 1],
     [1, 1, 1, 1, 1, 1, 1, 1],
     [1, 1, 1, 1, 1, 1, 1, 1],
     [1, 1, 1, 1, 1, 1, 1, 1],
     [1, 1, 1, 1, 1, 1, 1, 1],
     [1, 1, 1, 1, 1, 1, 1, 1],
     [1, 1, 1, 1, 1, 1, 1, 1],
     [1, 1, 1, 1, 1, 1, 1, 1],
     [1, 1, 1, 1, 1, 1, 1, 1],
     [1, 1, 1, 1, 1, 1, 1, 1],
     [1, 1, 1, 1, 1, 1, 1, 1],
     [1, 1, 1, 1, 1, 1, 1, 1],
     [1, 1, 1, 1, 1, 1, 1, 1],
     [1, 1, 1, 1, 1, 1, 1, 1],
     [1, 1, 1, 1, 1, 1, 1, 1],
     [1, 1, 1, 1, 1, 1, 1, 1],
     [1, 1, 1, 1, 1, 1, 1, 1],
     [1, 1, 1, 1, 1, 1, 1, 1]]"

definition sup_cond_spaces_5 :: "int list list" where
  "sup_cond_spaces_5 =
    [[1, 1, 1, 1, 1, 1, 1, 1],
     [1, 1, 1, 1, 1, 1, 1, 1],
     [1, 1, 1, 1, 1, 1, 1, 1],
     [1, 1, 1, 1, 1, 1, 1, 1],
     [1, 1, 1, 1, 1, 1, 1, 1],
     [1, 1, 1, 1, 1, 1, 1, 1],
     [1, 1, 1, 1, 1, 1, 1, 1],
     [1, 1, 1, 1, 1, 1, 1, 1],
     [1, 1, 1, 1, 1, 1, 1, 1],
     [1, 1, 1, 1, 1, 1, 1, 1],
     [1, 1, 1, 1, 1, 1, 1, 1],
     [1, 1, 1, 1, 1, 1, 1, 1],
     [1, 1, 1, 1, 1, 1, 1, 1],
     [1, 1, 1, 1, 1, 1, 1, 1],
     [1, 1, 1, 1, 1, 1, 1, 1],
     [1, 1, 1, 1, 1, 1, 1, 1],
     [1, 1, 1, 1, 1, 1, 1, 1],
     [1, 1, 1, 1, 1, 1, 1, 1],
     [1, 1, 1, 1, 1, 1, 1, 1],
     [1, 1, 1, 1, 1, 1, 1, 1],
     [1, 1, 1, 1, 1, 1, 1, 1],
     [1, 1, 1, 1, 1, 1, 1, 1],
     [1, 1, 1, 1, 1, 1, 1, 1],
     [1, 1, 1, 1, 1, 1, 1, 1],
     [1, 1, 1, 1, 1, 1, 1, 1],
     [1, 1, 1, 1, 1, 1, 1, 1],
     [1, 1, 1, 1, 1, 1, 1, 1],
     [1, 1, 1, 1, 1, 1, 1, 1],
     [1, 1, 1, 1, 1, 1, 1, 1],
     [1, 1, 1, 1, 1, 1, 1, 1],
     [1, 1, 1, 1, 1, 1, 1, 1],
     [1, 1, 1, 1, 1, 1, 1, 1],
     [1, 1, 1, 1, 1, 1, 1, 1],
     [1, 1, 1, 1, 1, 1, 1, 1],
     [1, 1, 1, 1, 1, 1, 1, 1],
     [1, 1, 1, 1, 1, 1, 1, 1],
     [1, 1, 1, 1, 1, 1, 1, 1],
     [1, 1, 1, 1, 1, 1, 1, 1],
     [1, 1, 1, 1, 1, 1, 1, 1],
     [1, 1, 1, 1, 1, 1, 1, 1],
     [1, 1, 1, 1, 1, 1, 1, 1],
     [1, 1, 1, 1, 1, 1, 1, 1],
     [1, 1, 1, 1, 1, 1, 1, 1],
     [1, 1, 1, 1, 1, 1, 1, 1],
     [1, 1, 1, 1, 1, 1, 1, 1],
     [1, 1, 1, 1, 1, 1, 1, 1],
     [1, 1, 1, 1, 1, 1, 1, 1],
     [1, 1, 1, 1, 1, 1, 1, 1],
     [1, 1, 1, 1, 1, 1, 1, 1],
     [1, 1, 1, 1, 1, 1, 1, 1],
     [1, 1, 1, 1, 1, 1, 1, 1],
     [1, 1, 1, 1, 1, 1, 1, 1],
     [1, 1, 1, 1, 1, 1, 1, 1],
     [1, 1, 1, 1, 1, 1, 1, 1],
     [1, 1, 1, 1, 1, 1, 1, 1],
     [1, 1, 1, 1, 1, 1, 1, 1],
     [1, 1, 1, 1, 1, 1, 1, 1],
     [1, 1, 1, 1, 1, 1, 1, 1],
     [1, 1, 1, 1, 1, 1, 1, 1],
     [1, 1, 1, 1, 1, 1, 1, 1],
     [1, 1, 1, 1, 1, 1, 1, 1],
     [1, 1, 1, 1, 1, 1, 1, 1],
     [1, 1, 1, 1, 1, 1, 1, 1],
     [1, 1, 1, 1, 1, 1, 1, 1],
     [1, 1, 1, 1, 1, 1, 1, 1],
     [1, 1, 1, 1, 1, 1, 1, 1],
     [1, 1, 1, 1, 1, 1, 1, 1],
     [1, 1, 1, 1, 1, 1, 1, 1],
     [1, 1, 1, 1, 1, 1, 1, 1],
     [1, 1, 1, 1, 1, 1, 1, 1],
     [1, 1, 1, 1, 1, 1, 1, 1],
     [1, 1, 1, 1, 1, 1, 1, 1],
     [1, 1, 1, 1, 1, 1, 1, 1],
     [1, 1, 1, 1, 1, 1, 1, 1],
     [1, 1, 1, 1, 1, 1, 1, 1],
     [1, 1, 1, 1, 1, 1, 1, 1],
     [1, 1, 1, 1, 1, 1, 1, 1],
     [1, 1, 1, 1, 1, 1, 1, 1],
     [1, 1, 1, 1, 1, 1, 1, 1],
     [1, 1, 1, 1, 1, 1, 1, 1],
     [1, 1, 1, 1, 1, 1, 1, 1],
     [1, 1, 1, 1, 1, 1, 1, 1],
     [1, 1, 1, 1, 1, 1, 1, 1],
     [1, 1, 1, 1, 1, 1, 1, 1],
     [1, 1, 1, 1, 1, 1, 1, 1],
     [1, 1, 1, 1, 1, 1, 1, 1],
     [1, 1, 1, 1, 1, 1, 1, 1],
     [1, 1, 1, 1, 1, 1, 1, 1],
     [1, 1, 1, 1, 1, 1, 1, 1],
     [1, 1, 1, 1, 1, 1, 1, 1],
     [1, 1, 1, 1, 1, 1, 1, 1],
     [1, 1, 1, 1, 1, 1, 1, 1],
     [1, 1, 1, 1, 1, 1, 1, 1],
     [1, 1, 1, 1, 1, 1, 1, 1],
     [1, 1, 1, 1, 1, 1, 1, 1],
     [1, 1, 1, 1, 1, 1, 1, 1],
     [1, 1, 1, 1, 1, 1, 1, 1],
     [1, 1, 1, 1, 1, 1, 1, 1],
     [1, 1, 1, 1, 1, 1, 1, 1],
     [1, 1, 1, 1, 1, 1, 1, 1],
     [1, 1, 1, 1, 1, 1, 1, 1],
     [1, 1, 1, 1, 1, 1, 1, 1],
     [1, 1, 1, 1, 1, 1, 1, 1],
     [1, 1, 1, 1, 1, 1, 1, 1],
     [1, 1, 1, 1, 1, 1, 1, 1],
     [1, 1, 1, 1, 1, 1, 1, 1],
     [1, 1, 1, 1, 1, 1, 1, 1],
     [1, 1, 1, 1, 1, 1, 1, 1],
     [1, 1, 1, 1, 1, 1, 1, 1],
     [1, 1, 1, 1, 1, 1, 1, 1],
     [1, 1, 1, 1, 1, 1, 1, 1],
     [1, 1, 1, 1, 1, 1, 1, 1],
     [1, 1, 1, 1, 1, 1, 1, 1],
     [1, 1, 1, 1, 1, 1, 1, 1],
     [1, 1, 1, 1, 1, 1, 1, 1],
     [1, 1, 1, 1, 1, 1, 1, 1],
     [1, 1, 1, 1, 1, 1, 1, 1],
     [1, 1, 1, 1, 1, 1, 1, 1],
     [1, 1, 1, 1, 1, 1, 1, 1],
     [1, 1, 1, 1, 1, 1, 1, 1],
     [1, 1, 1, 1, 1, 1, 1, 1],
     [1, 1, 1, 1, 1, 1, 1, 1],
     [1, 1, 1, 1, 1, 1, 1, 1],
     [1, 1, 1, 1, 1, 1, 1, 1],
     [1, 1, 1, 1, 1, 1, 1, 1],
     [1, 1, 1, 1, 1, 1, 1, 1],
     [1, 1, 1, 1, 1, 1, 1, 1],
     [1, 1, 1, 1, 1, 1, 1, 1],
     [1, 1, 1, 1, 1, 1, 1, 1],
     [1, 1, 1, 1, 1, 1, 1, 1],
     [1, 1, 1, 1, 1, 1, 1, 1],
     [1, 1, 1, 1, 1, 1, 1, 1],
     [1, 1, 1, 1, 1, 1, 1, 1],
     [1, 1, 1, 1, 1, 1, 1, 1],
     [1, 1, 1, 1, 1, 1, 1, 1],
     [1, 1, 1, 1, 1, 1, 1, 1],
     [1, 1, 1, 1, 1, 1, 1, 1],
     [1, 1, 1, 1, 1, 1, 1, 1],
     [1, 1, 1, 1, 1, 1, 1, 1],
     [1, 1, 1, 1, 1, 1, 1, 1],
     [1, 1, 1, 1, 1, 1, 1, 1],
     [1, 1, 1, 1, 1, 1, 1, 1],
     [1, 1, 1, 1, 1, 1, 1, 1],
     [1, 1, 1, 1, 1, 1, 1, 1],
     [1, 1, 1, 1, 1, 1, 1, 1],
     [1, 1, 1, 1, 1, 1, 1, 1],
     [1, 1, 1, 1, 1, 1, 1, 1],
     [1, 1, 1, 1, 1, 1, 1, 1],
     [1, 1, 1, 1, 1, 1, 1, 1],
     [1, 1, 1, 1, 1, 1, 1, 1]]"

definition sup_cond_spaces_6 :: "int list list" where
  "sup_cond_spaces_6 =
    [[1, 1, 1, 1, 1, 1, 1, 1],
     [1, 1, 1, 1, 1, 1, 1, 1],
     [1, 1, 1, 1, 1, 1, 1, 1],
     [1, 1, 1, 1, 1, 1, 1, 1],
     [1, 1, 1, 1, 1, 1, 1, 1],
     [1, 1, 1, 1, 1, 1, 1, 1],
     [1, 1, 1, 1, 1, 1, 1, 1],
     [1, 1, 1, 1, 1, 1, 1, 1],
     [1, 1, 1, 1, 1, 1, 1, 1],
     [1, 1, 1, 1, 1, 1, 1, 1],
     [1, 1, 1, 1, 1, 1, 1, 1],
     [1, 1, 1, 1, 1, 1, 1, 1],
     [1, 1, 1, 1, 1, 1, 1, 1],
     [1, 1, 1, 1, 1, 1, 1, 1],
     [1, 1, 1, 1, 1, 1, 1, 1],
     [1, 1, 1, 1, 1, 1, 1, 1],
     [1, 1, 1, 1, 1, 1, 1, 1],
     [1, 1, 1, 1, 1, 1, 1, 1],
     [1, 1, 1, 1, 1, 1, 1, 1],
     [1, 1, 1, 1, 1, 1, 1, 1],
     [1, 1, 1, 1, 1, 1, 1, 1],
     [1, 1, 1, 1, 1, 1, 1, 1],
     [1, 1, 1, 1, 1, 1, 1, 1],
     [1, 1, 1, 1, 1, 1, 1, 1],
     [1, 1, 1, 1, 1, 1, 1, 1],
     [1, 1, 1, 1, 1, 1, 1, 1],
     [1, 1, 1, 1, 1, 1, 1, 1],
     [1, 1, 1, 1, 1, 1, 1, 1],
     [1, 1, 1, 1, 1, 1, 1, 1],
     [1, 1, 1, 1, 1, 1, 1, 1],
     [1, 1, 1, 1, 1, 1, 1, 1],
     [1, 1, 1, 1, 1, 1, 1, 1],
     [1, 1, 1, 1, 1, 1, 1, 1],
     [1, 1, 1, 1, 1, 1, 1, 1],
     [1, 1, 1, 1, 1, 1, 1, 1],
     [1, 1, 1, 1, 1, 1, 1, 1],
     [1, 1, 1, 1, 1, 1, 1, 1],
     [1, 1, 1, 1, 1, 1, 1, 1],
     [1, 1, 1, 1, 1, 1, 1, 1],
     [1, 1, 1, 1, 1, 1, 1, 1],
     [1, 1, 1, 1, 1, 1, 1, 1],
     [1, 1, 1, 1, 1, 1, 1, 1],
     [1, 1, 1, 1, 1, 1, 1, 1],
     [1, 1, 1, 1, 1, 1, 1, 1],
     [1, 1, 1, 1, 1, 1, 1, 1],
     [1, 1, 1, 1, 1, 1, 1, 1],
     [1, 1, 1, 1, 1, 1, 1, 1],
     [1, 1, 1, 1, 1, 1, 1, 1],
     [1, 1, 1, 1, 1, 1, 1, 1],
     [1, 1, 1, 1, 1, 1, 1, 1],
     [1, 1, 1, 1, 1, 1, 1, 1],
     [1, 1, 1, 1, 1, 1, 1, 1],
     [1, 1, 1, 1, 1, 1, 1, 1],
     [1, 1, 1, 1, 1, 1, 1, 1],
     [1, 1, 1, 1, 1, 1, 1, 1],
     [1, 1, 1, 1, 1, 1, 1, 1],
     [1, 1, 1, 1, 1, 1, 1, 1],
     [1, 1, 1, 1, 1, 1, 1, 1],
     [1, 1, 1, 1, 1, 1, 1, 1],
     [1, 1, 1, 1, 1, 1, 1, 1],
     [1, 1, 1, 1, 1, 1, 1, 1],
     [1, 1, 1, 1, 1, 1, 1, 1],
     [1, 1, 1, 1, 1, 1, 1, 1],
     [1, 1, 1, 1, 1, 1, 1, 1],
     [1, 1, 1, 1, 1, 1, 1, 1],
     [1, 1, 1, 1, 1, 1, 1, 1],
     [1, 1, 1, 1, 1, 1, 1, 1],
     [1, 1, 1, 1, 1, 1, 1, 1],
     [1, 1, 1, 1, 1, 1, 1, 1],
     [1, 1, 1, 1, 1, 1, 1, 1],
     [1, 1, 1, 1, 1, 1, 1, 1],
     [1, 1, 1, 1, 1, 1, 1, 1],
     [1, 1, 1, 1, 1, 1, 1, 1],
     [1, 1, 1, 1, 1, 1, 1, 1],
     [1, 1, 1, 1, 1, 1, 1, 1],
     [1, 1, 1, 1, 1, 1, 1, 1],
     [1, 1, 1, 1, 1, 1, 1, 1],
     [1, 1, 1, 1, 1, 1, 1, 1],
     [1, 1, 1, 1, 1, 1, 1, 1],
     [1, 1, 1, 1, 1, 1, 1, 1],
     [1, 1, 1, 1, 1, 1, 1, 1],
     [1, 1, 1, 1, 1, 1, 1, 1],
     [1, 1, 1, 1, 1, 1, 1, 1],
     [1, 1, 1, 1, 1, 1, 1, 1],
     [1, 1, 1, 1, 1, 1, 1, 1],
     [1, 1, 1, 1, 1, 1, 1, 1],
     [1, 1, 1, 1, 1, 1, 1, 1],
     [1, 1, 1, 1, 1, 1, 1, 1],
     [1, 1, 1, 1, 1, 1, 1, 1],
     [1, 1, 1, 1, 1, 1, 1, 1],
     [1, 1, 1, 1, 1, 1, 1, 1],
     [1, 1, 1, 1, 1, 1, 1, 1],
     [1, 1, 1, 1, 1, 1, 1, 1],
     [1, 1, 1, 1, 1, 1, 1, 1],
     [1, 1, 1, 1, 1, 1, 1, 1],
     [1, 1, 1, 1, 1, 1, 1, 1],
     [1, 1, 1, 1, 1, 1, 1, 1],
     [1, 1, 1, 1, 1, 1, 1, 1],
     [1, 1, 1, 1, 1, 1, 1, 1],
     [1, 1, 1, 1, 1, 1, 1, 1],
     [1, 1, 1, 1, 1, 1, 1, 1],
     [1, 1, 1, 1, 1, 1, 1, 1],
     [1, 1, 1, 1, 1, 1, 1, 1],
     [1, 1, 1, 1, 1, 1, 1, 1],
     [1, 1, 1, 1, 1, 1, 1, 1],
     [1, 1, 1, 1, 1, 1, 1, 1],
     [1, 1, 1, 1, 1, 1, 1, 1],
     [1, 1, 1, 1, 1, 1, 1, 1],
     [1, 1, 1, 1, 1, 1, 1, 1],
     [1, 1, 1, 1, 1, 1, 1, 1],
     [1, 1, 1, 1, 1, 1, 1, 1],
     [1, 1, 1, 1, 1, 1, 1, 1],
     [1, 1, 1, 1, 1, 1, 1, 1],
     [1, 1, 1, 1, 1, 1, 1, 1],
     [1, 1, 1, 1, 1, 1, 1, 1],
     [1, 1, 1, 1, 1, 1, 1, 1],
     [1, 1, 1, 1, 1, 1, 1, 1],
     [1, 1, 1, 1, 1, 1, 1, 1],
     [1, 1, 1, 1, 1, 1, 1, 1],
     [1, 1, 1, 1, 1, 1, 1, 1],
     [1, 1, 1, 1, 1, 1, 1, 1],
     [1, 1, 1, 1, 1, 1, 1, 1],
     [1, 1, 1, 1, 1, 1, 1, 1],
     [1, 1, 1, 1, 1, 1, 1, 1],
     [1, 1, 1, 1, 1, 1, 1, 1],
     [1, 1, 1, 1, 1, 1, 1, 1],
     [1, 1, 1, 1, 1, 1, 1, 1],
     [1, 1, 1, 1, 1, 1, 1, 1],
     [1, 1, 1, 1, 1, 1, 1, 1],
     [1, 1, 1, 1, 1, 1, 1, 1],
     [1, 1, 1, 1, 1, 1, 1, 1],
     [1, 1, 1, 1, 1, 1, 1, 1],
     [1, 1, 1, 1, 1, 1, 1, 1],
     [1, 1, 1, 1, 1, 1, 1, 1],
     [1, 1, 1, 1, 1, 1, 1, 1],
     [1, 1, 1, 1, 1, 1, 1, 1],
     [1, 1, 1, 1, 1, 1, 1, 1],
     [1, 1, 1, 1, 1, 1, 1, 1],
     [1, 1, 1, 1, 1, 1, 1, 1],
     [1, 1, 1, 1, 1, 1, 1, 1],
     [1, 1, 1, 1, 1, 1, 1, 1],
     [1, 1, 1, 1, 1, 1, 1, 1],
     [1, 1, 1, 1, 1, 1, 1, 1],
     [1, 1, 1, 1, 1, 1, 1, 1],
     [1, 1, 1, 1, 1, 1, 1, 1],
     [1, 1, 1, 1, 1, 1, 1, 1],
     [1, 1, 1, 1, 1, 1, 1, 1],
     [1, 1, 1, 1, 1, 1, 1, 1],
     [1, 1, 1, 1, 1, 1, 1, 1],
     [1, 1, 1, 1, 1, 1, 1, 1]]"

definition sup_cond_spaces_7 :: "int list list" where
  "sup_cond_spaces_7 =
    [[1, 1, 1, 1, 1, 1, 1, 1],
     [1, 1, 1, 1, 1, 1, 1, 1],
     [1, 1, 1, 1, 1, 1, 1, 1],
     [1, 1, 1, 1, 1, 1, 1, 1],
     [1, 1, 1, 1, 1, 1, 1, 1],
     [1, 1, 1, 1, 1, 1, 1, 1],
     [1, 1, 1, 1, 1, 1, 1, 1],
     [1, 1, 1, 1, 1, 1, 1, 1],
     [1, 1, 1, 1, 1, 1, 1, 1],
     [1, 1, 1, 1, 1, 1, 1, 1],
     [1, 1, 1, 1, 1, 1, 1, 1],
     [1, 1, 1, 1, 1, 1, 1, 1],
     [1, 1, 1, 1, 1, 1, 1, 1],
     [1, 1, 1, 1, 1, 1, 1, 1],
     [1, 1, 1, 1, 1, 1, 1, 1],
     [1, 1, 1, 1, 1, 1, 1, 1],
     [1, 1, 1, 1, 1, 1, 1, 1],
     [1, 1, 1, 1, 1, 1, 1, 1],
     [1, 1, 1, 1, 1, 1, 1, 1],
     [1, 1, 1, 1, 1, 1, 1, 1],
     [1, 1, 1, 1, 1, 1, 1, 1],
     [1, 1, 1, 1, 1, 1, 1, 1],
     [1, 1, 1, 1, 1, 1, 1, 1],
     [1, 1, 1, 1, 1, 1, 1, 1],
     [1, 1, 1, 1, 1, 1, 1, 1],
     [1, 1, 1, 1, 1, 1, 1, 1],
     [1, 1, 1, 1, 1, 1, 1, 1],
     [1, 1, 1, 1, 1, 1, 1, 1],
     [1, 1, 1, 1, 1, 1, 1, 1],
     [1, 1, 1, 1, 1, 1, 1, 1],
     [1, 1, 1, 1, 1, 1, 1, 1],
     [1, 1, 1, 1, 1, 1, 1, 1],
     [1, 1, 1, 1, 1, 1, 1, 1],
     [1, 1, 1, 1, 1, 1, 1, 1],
     [1, 1, 1, 1, 1, 1, 1, 1],
     [1, 1, 1, 1, 1, 1, 1, 1],
     [1, 1, 1, 1, 1, 1, 1, 1],
     [1, 1, 1, 1, 1, 1, 1, 1],
     [1, 1, 1, 1, 1, 1, 1, 1],
     [1, 1, 1, 1, 1, 1, 1, 1],
     [1, 1, 1, 1, 1, 1, 1, 1],
     [1, 1, 1, 1, 1, 1, 1, 1],
     [1, 1, 1, 1, 1, 1, 1, 1],
     [1, 1, 1, 1, 1, 1, 1, 1],
     [1, 1, 1, 1, 1, 1, 1, 1],
     [1, 1, 1, 1, 1, 1, 1, 1],
     [1, 1, 1, 1, 1, 1, 1, 1],
     [1, 1, 1, 1, 1, 1, 1, 1],
     [1, 1, 1, 1, 1, 1, 1, 1],
     [1, 1, 1, 1, 1, 1, 1, 1],
     [1, 1, 1, 1, 1, 1, 1, 1],
     [1, 1, 1, 1, 1, 1, 1, 1],
     [1, 1, 1, 1, 1, 1, 1, 1],
     [1, 1, 1, 1, 1, 1, 1, 1],
     [1, 1, 1, 1, 1, 1, 1, 1],
     [1, 1, 1, 1, 1, 1, 1, 1],
     [1, 1, 1, 1, 1, 1, 1, 1],
     [1, 1, 1, 1, 1, 1, 1, 1],
     [1, 1, 1, 1, 1, 1, 1, 1],
     [1, 1, 1, 1, 1, 1, 1, 1],
     [1, 1, 1, 1, 1, 1, 1, 1],
     [1, 1, 1, 1, 1, 1, 1, 1],
     [1, 1, 1, 1, 1, 1, 1, 1],
     [1, 1, 1, 1, 1, 1, 1, 1],
     [1, 1, 1, 1, 1, 1, 1, 1],
     [1, 1, 1, 1, 1, 1, 1, 1],
     [1, 1, 1, 1, 1, 1, 1, 1],
     [1, 1, 1, 1, 1, 1, 1, 1],
     [1, 1, 1, 1, 1, 1, 1, 1],
     [1, 1, 1, 1, 1, 1, 1, 1],
     [1, 1, 1, 1, 1, 1, 1, 1],
     [1, 1, 1, 1, 1, 1, 1, 1],
     [1, 1, 1, 1, 1, 1, 1, 1],
     [1, 1, 1, 1, 1, 1, 1, 1],
     [1, 1, 1, 1, 1, 1, 1, 1],
     [1, 1, 1, 1, 1, 1, 1, 1],
     [1, 1, 1, 1, 1, 1, 1, 1],
     [1, 1, 1, 1, 1, 1, 1, 1],
     [1, 1, 1, 1, 1, 1, 1, 1],
     [1, 1, 1, 1, 1, 1, 1, 1],
     [1, 1, 1, 1, 1, 1, 1, 1],
     [1, 1, 1, 1, 1, 1, 1, 1],
     [1, 1, 1, 1, 1, 1, 1, 1],
     [1, 1, 1, 1, 1, 1, 1, 1],
     [1, 1, 1, 1, 1, 1, 1, 1],
     [1, 1, 1, 1, 1, 1, 1, 1],
     [1, 1, 1, 1, 1, 1, 1, 1],
     [1, 1, 1, 1, 1, 1, 1, 1],
     [1, 1, 1, 1, 1, 1, 1, 1],
     [1, 1, 1, 1, 1, 1, 1, 1],
     [1, 1, 1, 1, 1, 1, 1, 1],
     [1, 1, 1, 1, 1, 1, 1, 1],
     [1, 1, 1, 1, 1, 1, 1, 1],
     [1, 1, 1, 1, 1, 1, 1, 1],
     [1, 1, 1, 1, 1, 1, 1, 1],
     [1, 1, 1, 1, 1, 1, 1, 1],
     [1, 1, 1, 1, 1, 1, 1, 1],
     [1, 1, 1, 1, 1, 1, 1, 1],
     [1, 1, 1, 1, 1, 1, 1, 1],
     [1, 1, 1, 1, 1, 1, 1, 1],
     [1, 1, 1, 1, 1, 1, 1, 1],
     [1, 1, 1, 1, 1, 1, 1, 1],
     [1, 1, 1, 1, 1, 1, 1, 1],
     [1, 1, 1, 1, 1, 1, 1, 1],
     [1, 1, 1, 1, 1, 1, 1, 1],
     [1, 1, 1, 1, 1, 1, 1, 1],
     [1, 1, 1, 1, 1, 1, 1, 1],
     [1, 1, 1, 1, 1, 1, 1, 1],
     [1, 1, 1, 1, 1, 1, 1, 1],
     [1, 1, 1, 1, 1, 1, 1, 1],
     [1, 1, 1, 1, 1, 1, 1, 1],
     [1, 1, 1, 1, 1, 1, 1, 1],
     [1, 1, 1, 1, 1, 1, 1, 1],
     [1, 1, 1, 1, 1, 1, 1, 1],
     [1, 1, 1, 1, 1, 1, 1, 1],
     [1, 1, 1, 1, 1, 1, 1, 1],
     [1, 1, 1, 1, 1, 1, 1, 1],
     [1, 1, 1, 1, 1, 1, 1, 1],
     [1, 1, 1, 1, 1, 1, 1, 1],
     [1, 1, 1, 1, 1, 1, 1, 1],
     [1, 1, 1, 1, 1, 1, 1, 1],
     [1, 1, 1, 1, 1, 1, 1, 1],
     [1, 1, 1, 1, 1, 1, 1, 1],
     [1, 1, 1, 1, 1, 1, 1, 1],
     [1, 1, 1, 1, 1, 1, 1, 1],
     [1, 1, 1, 1, 1, 1, 1, 1],
     [1, 1, 1, 1, 1, 1, 1, 1],
     [1, 1, 1, 1, 1, 1, 1, 1],
     [1, 1, 1, 1, 1, 1, 1, 1],
     [1, 1, 1, 1, 1, 1, 1, 1],
     [1, 1, 1, 1, 1, 1, 1, 1],
     [1, 1, 1, 1, 1, 1, 1, 1],
     [1, 1, 1, 1, 1, 1, 1, 1],
     [1, 1, 1, 1, 1, 1, 1, 1],
     [1, 1, 1, 1, 1, 1, 1, 1],
     [1, 1, 1, 1, 1, 1, 1, 1],
     [1, 1, 1, 1, 1, 1, 1, 1],
     [1, 1, 1, 1, 1, 1, 1, 1],
     [1, 1, 1, 1, 1, 1, 1, 1],
     [1, 1, 1, 1, 1, 1, 1, 1],
     [1, 1, 1, 1, 1, 1, 1, 1],
     [1, 1, 1, 1, 1, 1, 1, 1],
     [1, 1, 1, 1, 1, 1, 1, 1],
     [1, 1, 1, 1, 1, 1, 1, 1],
     [1, 1, 1, 1, 1, 1, 1, 1],
     [1, 1, 1, 1, 1, 1, 1, 1],
     [1, 1, 1, 1, 1, 1, 1, 1],
     [1, 1, 1, 1, 1, 1, 1, 1],
     [1, 1, 1, 1, 1, 1, 1, 1],
     [1, 1, 1, 1, 1, 1, 1, 1]]"

definition sup_cond_spaces_8 :: "int list list" where
  "sup_cond_spaces_8 =
    [[1, 1, 1, 1, 1, 1, 1, 1],
     [1, 1, 1, 1, 1, 1, 1, 1],
     [1, 1, 1, 1, 1, 1, 1, 1],
     [1, 1, 1, 1, 1, 1, 1, 1],
     [1, 1, 1, 1, 1, 1, 1, 1],
     [1, 1, 1, 1, 1, 1, 1, 1],
     [1, 1, 1, 1, 1, 1, 1, 1],
     [1, 1, 1, 1, 1, 1, 1, 1],
     [1, 1, 1, 1, 1, 1, 1, 1],
     [1, 1, 1, 1, 1, 1, 1, 1],
     [1, 1, 1, 1, 1, 1, 1, 1],
     [1, 1, 1, 1, 1, 1, 1, 1],
     [1, 1, 1, 1, 1, 1, 1, 1],
     [1, 1, 1, 1, 1, 1, 1, 1],
     [1, 1, 1, 1, 1, 1, 1, 1],
     [1, 1, 1, 1, 1, 1, 1, 1],
     [1, 1, 1, 1, 1, 1, 1, 1],
     [1, 1, 1, 1, 1, 1, 1, 1],
     [1, 1, 1, 1, 1, 1, 1, 1],
     [1, 1, 1, 1, 1, 1, 1, 1],
     [1, 1, 1, 1, 1, 1, 1, 1],
     [1, 1, 1, 1, 1, 1, 1, 1],
     [1, 1, 1, 1, 1, 1, 1, 1],
     [1, 1, 1, 1, 1, 1, 1, 1],
     [1, 1, 1, 1, 1, 1, 1, 1],
     [1, 1, 1, 1, 1, 1, 1, 1],
     [1, 1, 1, 1, 1, 1, 1, 1],
     [1, 1, 1, 1, 1, 1, 1, 1],
     [1, 1, 1, 1, 1, 1, 1, 1],
     [1, 1, 1, 1, 1, 1, 1, 1],
     [1, 1, 1, 1, 1, 1, 1, 1],
     [1, 1, 1, 1, 1, 1, 1, 1],
     [1, 1, 1, 1, 1, 1, 1, 1],
     [1, 1, 1, 1, 1, 1, 1, 1],
     [1, 1, 1, 1, 1, 1, 1, 1],
     [1, 1, 1, 1, 1, 1, 1, 1],
     [1, 1, 1, 1, 1, 1, 1, 1],
     [1, 1, 1, 1, 1, 1, 1, 1],
     [1, 1, 1, 1, 1, 1, 1, 1],
     [1, 1, 1, 1, 1, 1, 1, 1],
     [1, 1, 1, 1, 1, 1, 1, 1],
     [1, 1, 1, 1, 1, 1, 1, 1],
     [1, 1, 1, 1, 1, 1, 1, 1],
     [1, 1, 1, 1, 1, 1, 1, 1],
     [1, 1, 1, 1, 1, 1, 1, 1],
     [1, 1, 1, 1, 1, 1, 1, 1],
     [1, 1, 1, 1, 1, 1, 1, 1],
     [1, 1, 1, 1, 1, 1, 1, 1],
     [1, 1, 1, 1, 1, 1, 1, 1],
     [1, 1, 1, 1, 1, 1, 1, 1],
     [1, 1, 1, 1, 1, 1, 1, 1],
     [1, 1, 1, 1, 1, 1, 1, 1],
     [1, 1, 1, 1, 1, 1, 1, 1],
     [1, 1, 1, 1, 1, 1, 1, 1],
     [1, 1, 1, 1, 1, 1, 1, 1],
     [1, 1, 1, 1, 1, 1, 1, 1],
     [1, 1, 1, 1, 1, 1, 1, 1],
     [1, 1, 1, 1, 1, 1, 1, 1],
     [1, 1, 1, 1, 1, 1, 1, 1],
     [1, 1, 1, 1, 1, 1, 1, 1],
     [1, 1, 1, 1, 1, 1, 1, 1],
     [1, 1, 1, 1, 1, 1, 1, 1],
     [1, 1, 1, 1, 1, 1, 1, 1],
     [1, 1, 1, 1, 1, 1, 1, 1],
     [1, 1, 1, 1, 1, 1, 1, 1],
     [1, 1, 1, 1, 1, 1, 1, 1],
     [1, 1, 1, 1, 1, 1, 1, 1],
     [1, 1, 1, 1, 1, 1, 1, 1],
     [1, 1, 1, 1, 1, 1, 1, 1],
     [1, 1, 1, 1, 1, 1, 1, 1],
     [1, 1, 1, 1, 1, 1, 1, 1],
     [1, 1, 1, 1, 1, 1, 1, 1],
     [1, 1, 1, 1, 1, 1, 1, 1],
     [1, 1, 1, 1, 1, 1, 1, 1],
     [1, 1, 1, 1, 1, 1, 1, 1],
     [1, 1, 1, 1, 1, 1, 1, 1],
     [1, 1, 1, 1, 1, 1, 1, 1],
     [1, 1, 1, 1, 1, 1, 1, 1],
     [1, 1, 1, 1, 1, 1, 1, 1],
     [1, 1, 1, 1, 1, 1, 1, 1],
     [1, 1, 1, 1, 1, 1, 1, 1],
     [1, 1, 1, 1, 1, 1, 1, 1],
     [1, 1, 1, 1, 1, 1, 1, 1],
     [1, 1, 1, 1, 1, 1, 1, 1],
     [1, 1, 1, 1, 1, 1, 1, 1],
     [1, 1, 1, 1, 1, 1, 1, 1],
     [1, 1, 1, 1, 1, 1, 1, 1],
     [1, 1, 1, 1, 1, 1, 1, 1],
     [1, 1, 1, 1, 1, 1, 1, 1],
     [1, 1, 1, 1, 1, 1, 1, 1],
     [1, 1, 1, 1, 1, 1, 1, 1],
     [1, 1, 1, 1, 1, 1, 1, 1],
     [1, 1, 1, 1, 1, 1, 1, 1],
     [1, 1, 1, 1, 1, 1, 1, 1],
     [1, 1, 1, 1, 1, 1, 1, 1],
     [1, 1, 1, 1, 1, 1, 1, 1],
     [1, 1, 1, 1, 1, 1, 1, 1],
     [1, 1, 1, 1, 1, 1, 1, 1],
     [1, 1, 1, 1, 1, 1, 1, 1],
     [1, 1, 1, 1, 1, 1, 1, 1],
     [1, 1, 1, 1, 1, 1, 1, 1],
     [1, 1, 1, 1, 1, 1, 1, 1],
     [1, 1, 1, 1, 1, 1, 1, 1],
     [1, 1, 1, 1, 1, 1, 1, 1],
     [1, 1, 1, 1, 1, 1, 1, 1],
     [1, 1, 1, 1, 1, 1, 1, 1],
     [1, 1, 1, 1, 1, 1, 1, 1],
     [1, 1, 1, 1, 1, 1, 1, 1],
     [1, 1, 1, 1, 1, 1, 1, 1],
     [1, 1, 1, 1, 1, 1, 1, 1],
     [1, 1, 1, 1, 1, 1, 1, 1],
     [1, 1, 1, 1, 1, 1, 1, 1],
     [1, 1, 1, 1, 1, 1, 1, 1],
     [1, 1, 1, 1, 1, 1, 1, 1],
     [1, 1, 1, 1, 1, 1, 1, 1],
     [1, 1, 1, 1, 1, 1, 1, 1],
     [1, 1, 1, 1, 1, 1, 1, 1],
     [1, 1, 1, 1, 1, 1, 1, 1],
     [1, 1, 1, 1, 1, 1, 1, 1],
     [1, 1, 1, 1, 1, 1, 1, 1],
     [1, 1, 1, 1, 1, 1, 1, 1],
     [1, 1, 1, 1, 1, 1, 1, 1],
     [1, 1, 1, 1, 1, 1, 1, 1],
     [1, 1, 1, 1, 1, 1, 1, 1],
     [1, 1, 1, 1, 1, 1, 1, 1],
     [1, 1, 1, 1, 1, 1, 1, 1],
     [1, 1, 1, 1, 1, 1, 1, 1],
     [1, 1, 1, 1, 1, 1, 1, 1],
     [1, 1, 1, 1, 1, 1, 1, 1],
     [1, 1, 1, 1, 1, 1, 1, 1],
     [1, 1, 1, 1, 1, 1, 1, 1],
     [1, 1, 1, 1, 1, 1, 1, 1],
     [1, 1, 1, 1, 1, 1, 1, 1],
     [1, 1, 1, 1, 1, 1, 1, 1],
     [1, 1, 1, 1, 1, 1, 1, 1],
     [1, 1, 1, 1, 1, 1, 1, 1],
     [1, 1, 1, 1, 1, 1, 1, 1],
     [1, 1, 1, 1, 1, 1, 1, 1],
     [1, 1, 1, 1, 1, 1, 1, 1],
     [1, 1, 1, 1, 1, 1, 1, 1],
     [1, 1, 1, 1, 1, 1, 1, 1],
     [1, 1, 1, 1, 1, 1, 1, 1],
     [1, 1, 1, 1, 1, 1, 1, 1],
     [1, 1, 1, 1, 1, 1, 1, 1],
     [1, 1, 1, 1, 1, 1, 1, 1],
     [1, 1, 1, 1, 1, 1, 1, 1],
     [1, 1, 1, 1, 1, 1, 1, 1],
     [1, 1, 1, 1, 1, 1, 1, 1],
     [1, 1, 1, 1, 1, 1, 1, 1],
     [1, 1, 1, 1, 1, 1, 1, 1]]"

definition sup_cond_spaces_9 :: "int list list" where
  "sup_cond_spaces_9 =
    [[1, 1, 1, 1, 1, 1, 1, 1],
     [1, 1, 1, 1, 1, 1, 1, 1],
     [1, 1, 1, 1, 1, 1, 1, 1],
     [1, 1, 1, 1, 1, 1, 1, 1],
     [1, 1, 1, 1, 1, 1, 1, 1],
     [1, 1, 1, 1, 1, 1, 1, 1],
     [1, 1, 1, 1, 1, 1, 1, 1],
     [1, 1, 1, 1, 1, 1, 1, 1],
     [1, 1, 1, 1, 1, 1, 1, 1],
     [1, 1, 1, 1, 1, 1, 1, 1],
     [1, 1, 1, 1, 1, 1, 1, 1],
     [1, 1, 1, 1, 1, 1, 1, 1],
     [1, 1, 1, 1, 1, 1, 1, 1],
     [1, 1, 1, 1, 1, 1, 1, 1],
     [1, 1, 1, 1, 1, 1, 1, 1],
     [1, 1, 1, 1, 1, 1, 1, 1],
     [1, 1, 1, 1, 1, 1, 1, 1],
     [1, 1, 1, 1, 1, 1, 1, 1],
     [1, 1, 1, 1, 1, 1, 1, 1],
     [1, 1, 1, 1, 1, 1, 1, 1],
     [1, 1, 1, 1, 1, 1, 1, 1],
     [1, 1, 1, 1, 1, 1, 1, 1],
     [1, 1, 1, 1, 1, 1, 1, 1],
     [1, 1, 1, 1, 1, 1, 1, 1],
     [1, 1, 1, 1, 1, 1, 1, 1],
     [1, 1, 1, 1, 1, 1, 1, 1],
     [1, 1, 1, 1, 1, 1, 1, 1],
     [1, 1, 1, 1, 1, 1, 1, 1],
     [1, 1, 1, 1, 1, 1, 1, 1],
     [1, 1, 1, 1, 1, 1, 1, 1],
     [1, 1, 1, 1, 1, 1, 1, 1],
     [1, 1, 1, 1, 1, 1, 1, 1],
     [1, 1, 1, 1, 1, 1, 1, 1],
     [1, 1, 1, 1, 1, 1, 1, 1],
     [1, 1, 1, 1, 1, 1, 1, 1],
     [1, 1, 1, 1, 1, 1, 1, 1],
     [1, 1, 1, 1, 1, 1, 1, 1],
     [1, 1, 1, 1, 1, 1, 1, 1],
     [1, 1, 1, 1, 1, 1, 1, 1],
     [1, 1, 1, 1, 1, 1, 1, 1],
     [1, 1, 1, 1, 1, 1, 1, 1],
     [1, 1, 1, 1, 1, 1, 1, 1],
     [1, 1, 1, 1, 1, 1, 1, 1],
     [1, 1, 1, 1, 1, 1, 1, 1],
     [1, 1, 1, 1, 1, 1, 1, 1],
     [1, 1, 1, 1, 1, 1, 1, 1],
     [1, 1, 1, 1, 1, 1, 1, 1],
     [1, 1, 1, 1, 1, 1, 1, 1],
     [1, 1, 1, 1, 1, 1, 1, 1],
     [1, 1, 1, 1, 1, 1, 1, 1],
     [1, 1, 1, 1, 1, 1, 1, 1],
     [1, 1, 1, 1, 1, 1, 1, 1],
     [1, 1, 1, 1, 1, 1, 1, 1],
     [1, 1, 1, 1, 1, 1, 1, 1],
     [1, 1, 1, 1, 1, 1, 1, 1],
     [1, 1, 1, 1, 1, 1, 1, 1],
     [1, 1, 1, 1, 1, 1, 1, 1],
     [1, 1, 1, 1, 1, 1, 1, 1],
     [1, 1, 1, 1, 1, 1, 1, 1],
     [1, 1, 1, 1, 1, 1, 1, 1],
     [1, 1, 1, 1, 1, 1, 1, 1],
     [1, 1, 1, 1, 1, 1, 1, 1],
     [1, 1, 1, 1, 1, 1, 1, 1],
     [1, 1, 1, 1, 1, 1, 1, 1],
     [1, 1, 1, 1, 1, 1, 1, 1],
     [1, 1, 1, 1, 1, 1, 1, 1],
     [1, 1, 1, 1, 1, 1, 1, 1],
     [1, 1, 1, 1, 1, 1, 1, 1],
     [1, 1, 1, 1, 1, 1, 1, 1],
     [1, 1, 1, 1, 1, 1, 1, 1],
     [1, 1, 1, 1, 1, 1, 1, 1],
     [1, 1, 1, 1, 1, 1, 1, 1],
     [1, 1, 1, 1, 1, 1, 1, 1],
     [1, 1, 1, 1, 1, 1, 1, 1],
     [1, 1, 1, 1, 1, 1, 1, 1],
     [1, 1, 1, 1, 1, 1, 1, 1],
     [1, 1, 1, 1, 1, 1, 1, 1],
     [1, 1, 1, 1, 1, 1, 1, 1],
     [1, 1, 1, 1, 1, 1, 1, 1],
     [1, 1, 1, 1, 1, 1, 1, 1],
     [1, 1, 1, 1, 1, 1, 1, 1],
     [1, 1, 1, 1, 1, 1, 1, 1],
     [1, 1, 1, 1, 1, 1, 1, 1],
     [1, 1, 1, 1, 1, 1, 1, 1],
     [1, 1, 1, 1, 1, 1, 1, 1],
     [1, 1, 1, 1, 1, 1, 1, 1],
     [1, 1, 1, 1, 1, 1, 1, 1],
     [1, 1, 1, 1, 1, 1, 1, 1],
     [1, 1, 1, 1, 1, 1, 1, 1],
     [1, 1, 1, 1, 1, 1, 1, 1],
     [1, 1, 1, 1, 1, 1, 1, 1],
     [1, 1, 1, 1, 1, 1, 1, 1],
     [1, 1, 1, 1, 1, 1, 1, 1],
     [1, 1, 1, 1, 1, 1, 1, 1],
     [1, 1, 1, 1, 1, 1, 1, 1],
     [1, 1, 1, 1, 1, 1, 1, 1],
     [1, 1, 1, 1, 1, 1, 1, 1],
     [1, 1, 1, 1, 1, 1, 1, 1],
     [1, 1, 1, 1, 1, 1, 1, 1],
     [1, 1, 1, 1, 1, 1, 1, 1],
     [1, 1, 1, 1, 1, 1, 1, 1],
     [1, 1, 1, 1, 1, 1, 1, 1],
     [1, 1, 1, 1, 1, 1, 1, 1],
     [1, 1, 1, 1, 1, 1, 1, 1],
     [1, 1, 1, 1, 1, 1, 1, 1],
     [1, 1, 1, 1, 1, 1, 1, 1],
     [1, 1, 1, 1, 1, 1, 1, 1],
     [1, 1, 1, 1, 1, 1, 1, 1],
     [1, 1, 1, 1, 1, 1, 1, 1],
     [1, 1, 1, 1, 1, 1, 1, 1],
     [1, 1, 1, 1, 1, 1, 1, 1],
     [1, 1, 1, 1, 1, 1, 1, 1],
     [1, 1, 1, 1, 1, 1, 1, 1],
     [1, 1, 1, 1, 1, 1, 1, 1],
     [1, 1, 1, 1, 1, 1, 1, 1],
     [1, 1, 1, 1, 1, 1, 1, 1],
     [1, 1, 1, 1, 1, 1, 1, 1],
     [1, 1, 1, 1, 1, 1, 1, 1],
     [1, 1, 1, 1, 1, 1, 1, 1],
     [1, 1, 1, 1, 1, 1, 1, 1],
     [1, 1, 1, 1, 1, 1, 1, 1],
     [1, 1, 1, 1, 1, 1, 1, 1],
     [1, 1, 1, 1, 1, 1, 1, 1],
     [1, 1, 1, 1, 1, 1, 1, 1],
     [1, 1, 1, 1, 1, 1, 1, 1],
     [1, 1, 1, 1, 1, 1, 1, 1],
     [1, 1, 1, 1, 1, 1, 1, 1],
     [1, 1, 1, 1, 1, 1, 1, 1],
     [1, 1, 1, 1, 1, 1, 1, 1],
     [1, 1, 1, 1, 1, 1, 1, 1],
     [1, 1, 1, 1, 1, 1, 1, 1],
     [1, 1, 1, 1, 1, 1, 1, 1],
     [1, 1, 1, 1, 1, 1, 1, 1],
     [1, 1, 1, 1, 1, 1, 1, 1],
     [1, 1, 1, 1, 1, 1, 1, 1],
     [1, 1, 1, 1, 1, 1, 1, 1],
     [1, 1, 1, 1, 1, 1, 1, 1],
     [1, 1, 1, 1, 1, 1, 1, 1],
     [1, 1, 1, 1, 1, 1, 1, 1],
     [1, 1, 1, 1, 1, 1, 1, 1],
     [1, 1, 1, 1, 1, 1, 1, 1],
     [1, 1, 1, 1, 1, 1, 1, 1],
     [1, 1, 1, 1, 1, 1, 1, 1],
     [1, 1, 1, 1, 1, 1, 1, 1],
     [1, 1, 1, 1, 1, 1, 1, 1],
     [1, 1, 1, 1, 1, 1, 1, 1],
     [1, 1, 1, 1, 1, 1, 1, 1],
     [1, 1, 1, 1, 1, 1, 1, 1],
     [1, 1, 1, 1, 1, 1, 1, 1],
     [1, 1, 1, 1, 1, 1, 1, 1]]"

definition sup_cond_spaces_10 :: "int list list" where
  "sup_cond_spaces_10 =
    [[1, 1, 1, 1, 1, 1, 1, 1],
     [1, 1, 1, 1, 1, 1, 1, 1],
     [1, 1, 1, 1, 1, 1, 1, 1],
     [1, 1, 1, 1, 1, 1, 1, 1],
     [1, 1, 1, 1, 1, 1, 1, 1],
     [1, 1, 1, 1, 1, 1, 1, 1],
     [1, 1, 1, 1, 1, 1, 1, 1],
     [1, 1, 1, 1, 1, 1, 1, 1],
     [1, 1, 1, 1, 1, 1, 1, 1],
     [1, 1, 1, 1, 1, 1, 1, 1],
     [1, 1, 1, 1, 1, 1, 1, 1],
     [1, 1, 1, 1, 1, 1, 1, 1],
     [1, 1, 1, 1, 1, 1, 1, 1],
     [1, 1, 1, 1, 1, 1, 1, 1],
     [1, 1, 1, 1, 1, 1, 1, 1],
     [1, 1, 1, 1, 1, 1, 1, 1],
     [1, 1, 1, 1, 1, 1, 1, 1],
     [1, 1, 1, 1, 1, 1, 1, 1],
     [1, 1, 1, 1, 1, 1, 1, 1],
     [1, 1, 1, 1, 1, 1, 1, 1],
     [1, 1, 1, 1, 1, 1, 1, 1],
     [1, 1, 1, 1, 1, 1, 1, 1],
     [1, 1, 1, 1, 1, 1, 1, 1],
     [1, 1, 1, 1, 1, 1, 1, 1],
     [1, 1, 1, 1, 1, 1, 1, 1],
     [1, 1, 1, 1, 1, 1, 1, 1],
     [1, 1, 1, 1, 1, 1, 1, 1],
     [1, 1, 1, 1, 1, 1, 1, 1],
     [1, 1, 1, 1, 1, 1, 1, 1],
     [1, 1, 1, 1, 1, 1, 1, 1],
     [1, 1, 1, 1, 1, 1, 1, 1],
     [1, 1, 1, 1, 1, 1, 1, 1],
     [1, 1, 1, 1, 1, 1, 1, 1],
     [1, 1, 1, 1, 1, 1, 1, 1],
     [1, 1, 1, 1, 1, 1, 1, 1],
     [1, 1, 1, 1, 1, 1, 1, 1],
     [1, 1, 1, 1, 1, 1, 1, 1],
     [1, 1, 1, 1, 1, 1, 1, 1],
     [1, 1, 1, 1, 1, 1, 1, 1],
     [1, 1, 1, 1, 1, 1, 1, 1],
     [1, 1, 1, 1, 1, 1, 1, 1],
     [1, 1, 1, 1, 1, 1, 1, 1],
     [1, 1, 1, 1, 1, 1, 1, 1],
     [1, 1, 1, 1, 1, 1, 1, 1],
     [1, 1, 1, 1, 1, 1, 1, 1],
     [1, 1, 1, 1, 1, 1, 1, 1],
     [1, 1, 1, 1, 1, 1, 1, 1],
     [1, 1, 1, 1, 1, 1, 1, 1],
     [1, 1, 1, 1, 1, 1, 1, 1],
     [1, 1, 1, 1, 1, 1, 1, 1],
     [1, 1, 1, 1, 1, 1, 1, 1],
     [1, 1, 1, 1, 1, 1, 1, 1],
     [1, 1, 1, 1, 1, 1, 1, 1],
     [1, 1, 1, 1, 1, 1, 1, 1],
     [1, 1, 1, 1, 1, 1, 1, 1],
     [1, 1, 1, 1, 1, 1, 1, 1],
     [1, 1, 1, 1, 1, 1, 1, 1],
     [1, 1, 1, 1, 1, 1, 1, 1],
     [1, 1, 1, 1, 1, 1, 1, 1],
     [1, 1, 1, 1, 1, 1, 1, 1],
     [1, 1, 1, 1, 1, 1, 1, 1],
     [1, 1, 1, 1, 1, 1, 1, 1],
     [1, 1, 1, 1, 1, 1, 1, 1],
     [1, 1, 1, 1, 1, 1, 1, 1],
     [1, 1, 1, 1, 1, 1, 1, 1],
     [1, 1, 1, 1, 1, 1, 1, 1],
     [1, 1, 1, 1, 1, 1, 1, 1],
     [1, 1, 1, 1, 1, 1, 1, 1],
     [1, 1, 1, 1, 1, 1, 1, 1],
     [1, 1, 1, 1, 1, 1, 1, 1],
     [1, 1, 1, 1, 1, 1, 1, 1],
     [1, 1, 1, 1, 1, 1, 1, 1],
     [1, 1, 1, 1, 1, 1, 1, 1],
     [1, 1, 1, 1, 1, 1, 1, 1],
     [1, 1, 1, 1, 1, 1, 1, 1],
     [1, 1, 1, 1, 1, 1, 1, 1],
     [1, 1, 1, 1, 1, 1, 1, 1],
     [1, 1, 1, 1, 1, 1, 1, 1],
     [1, 1, 1, 1, 1, 1, 1, 1],
     [1, 1, 1, 1, 1, 1, 1, 1],
     [1, 1, 1, 1, 1, 1, 1, 1],
     [1, 1, 1, 1, 1, 1, 1, 1],
     [1, 1, 1, 1, 1, 1, 1, 1],
     [1, 1, 1, 1, 1, 1, 1, 1],
     [1, 1, 1, 1, 1, 1, 1, 1],
     [1, 1, 1, 1, 1, 1, 1, 1],
     [1, 1, 1, 1, 1, 1, 1, 1],
     [1, 1, 1, 1, 1, 1, 1, 1],
     [1, 1, 1, 1, 1, 1, 1, 1],
     [1, 1, 1, 1, 1, 1, 1, 1],
     [1, 1, 1, 1, 1, 1, 1, 1],
     [1, 1, 1, 1, 1, 1, 1, 1],
     [1, 1, 1, 1, 1, 1, 1, 1],
     [1, 1, 1, 1, 1, 1, 1, 1],
     [1, 1, 1, 1, 1, 1, 1, 1],
     [1, 1, 1, 1, 1, 1, 1, 1],
     [1, 1, 1, 1, 1, 1, 1, 1],
     [1, 1, 1, 1, 1, 1, 1, 1],
     [1, 1, 1, 1, 1, 1, 1, 1],
     [1, 1, 1, 1, 1, 1, 1, 1],
     [1, 1, 1, 1, 1, 1, 1, 1],
     [1, 1, 1, 1, 1, 1, 1, 1],
     [1, 1, 1, 1, 1, 1, 1, 1],
     [1, 1, 1, 1, 1, 1, 1, 1],
     [1, 1, 1, 1, 1, 1, 1, 1],
     [1, 1, 1, 1, 1, 1, 1, 1],
     [1, 1, 1, 1, 1, 1, 1, 1],
     [1, 1, 1, 1, 1, 1, 1, 1],
     [1, 1, 1, 1, 1, 1, 1, 1],
     [1, 1, 1, 1, 1, 1, 1, 1],
     [1, 1, 1, 1, 1, 1, 1, 1],
     [1, 1, 1, 1, 1, 1, 1, 1],
     [1, 1, 1, 1, 1, 1, 1, 1],
     [1, 1, 1, 1, 1, 1, 1, 1],
     [1, 1, 1, 1, 1, 1, 1, 1],
     [1, 1, 1, 1, 1, 1, 1, 1],
     [1, 1, 1, 1, 1, 1, 1, 1],
     [1, 1, 1, 1, 1, 1, 1, 1],
     [1, 1, 1, 1, 1, 1, 1, 1],
     [1, 1, 1, 1, 1, 1, 1, 1],
     [1, 1, 1, 1, 1, 1, 1, 1],
     [1, 1, 1, 1, 1, 1, 1, 1],
     [1, 1, 1, 1, 1, 1, 1, 1],
     [1, 1, 1, 1, 1, 1, 1, 1],
     [1, 1, 1, 1, 1, 1, 1, 1],
     [1, 1, 1, 1, 1, 1, 1, 1],
     [1, 1, 1, 1, 1, 1, 1, 1],
     [1, 1, 1, 1, 1, 1, 1, 1],
     [1, 1, 1, 1, 1, 1, 1, 1],
     [1, 1, 1, 1, 1, 1, 1, 1],
     [1, 1, 1, 1, 1, 1, 1, 1],
     [1, 1, 1, 1, 1, 1, 1, 1],
     [1, 1, 1, 1, 1, 1, 1, 1],
     [1, 1, 1, 1, 1, 1, 1, 1],
     [1, 1, 1, 1, 1, 1, 1, 1],
     [1, 1, 1, 1, 1, 1, 1, 1],
     [1, 1, 1, 1, 1, 1, 1, 1],
     [1, 1, 1, 1, 1, 1, 1, 1],
     [1, 1, 1, 1, 1, 1, 1, 1],
     [1, 1, 1, 1, 1, 1, 1, 1],
     [1, 1, 1, 1, 1, 1, 1, 1],
     [1, 1, 1, 1, 1, 1, 1, 1],
     [1, 1, 1, 1, 1, 1, 1, 1],
     [1, 1, 1, 1, 1, 1, 1, 1],
     [1, 1, 1, 1, 1, 1, 1, 1],
     [1, 1, 1, 1, 1, 1, 1, 1],
     [1, 1, 1, 1, 1, 1, 1, 1],
     [1, 1, 1, 1, 1, 1, 1, 1],
     [1, 1, 1, 1, 1, 1, 1, 1],
     [1, 1, 1, 1, 1, 1, 1, 1]]"

definition sup_cond_spaces_11 :: "int list list" where
  "sup_cond_spaces_11 =
    [[1, 1, 1, 1, 1, 1, 1, 1],
     [1, 1, 1, 1, 1, 1, 1, 1],
     [1, 1, 1, 1, 1, 1, 1, 1],
     [1, 1, 1, 1, 1, 1, 1, 1],
     [1, 1, 1, 1, 1, 1, 1, 1],
     [1, 1, 1, 1, 1, 1, 1, 1],
     [1, 1, 1, 1, 1, 1, 1, 1],
     [1, 1, 1, 1, 1, 1, 1, 1],
     [1, 1, 1, 1, 1, 1, 1, 1],
     [1, 1, 1, 1, 1, 1, 1, 1],
     [1, 1, 1, 1, 1, 1, 1, 1],
     [1, 1, 1, 1, 1, 1, 1, 1],
     [1, 1, 1, 1, 1, 1, 1, 1],
     [1, 1, 1, 1, 1, 1, 1, 1],
     [1, 1, 1, 1, 1, 1, 1, 1],
     [1, 1, 1, 1, 1, 1, 1, 1],
     [1, 1, 1, 1, 1, 1, 1, 1],
     [1, 1, 1, 1, 1, 1, 1, 1],
     [1, 1, 1, 1, 1, 1, 1, 1],
     [1, 1, 1, 1, 1, 1, 1, 1],
     [1, 1, 1, 1, 1, 1, 1, 1],
     [1, 1, 1, 1, 1, 1, 1, 1],
     [1, 1, 1, 1, 1, 1, 1, 1],
     [1, 1, 1, 1, 1, 1, 1, 1],
     [1, 1, 1, 1, 1, 1, 1, 1],
     [1, 1, 1, 1, 1, 1, 1, 1],
     [1, 1, 1, 1, 1, 1, 1, 1],
     [1, 1, 1, 1, 1, 1, 1, 1],
     [1, 1, 1, 1, 1, 1, 1, 1],
     [1, 1, 1, 1, 1, 1, 1, 1],
     [1, 1, 1, 1, 1, 1, 1, 1],
     [1, 1, 1, 1, 1, 1, 1, 1],
     [1, 1, 1, 1, 1, 1, 1, 1],
     [1, 1, 1, 1, 1, 1, 1, 1],
     [1, 1, 1, 1, 1, 1, 1, 1],
     [1, 1, 1, 1, 1, 1, 1, 1],
     [1, 1, 1, 1, 1, 1, 1, 1],
     [1, 1, 1, 1, 1, 1, 1, 1],
     [1, 1, 1, 1, 1, 1, 1, 1],
     [1, 1, 1, 1, 1, 1, 1, 1],
     [1, 1, 1, 1, 1, 1, 1, 1],
     [1, 1, 1, 1, 1, 1, 1, 1],
     [1, 1, 1, 1, 1, 1, 1, 1],
     [1, 1, 1, 1, 1, 1, 1, 1],
     [1, 1, 1, 1, 1, 1, 1, 1],
     [1, 1, 1, 1, 1, 1, 1, 1],
     [1, 1, 1, 1, 1, 1, 1, 1],
     [1, 1, 1, 1, 1, 1, 1, 1],
     [1, 1, 1, 1, 1, 1, 1, 1],
     [1, 1, 1, 1, 1, 1, 1, 1],
     [1, 1, 1, 1, 1, 1, 1, 1],
     [1, 1, 1, 1, 1, 1, 1, 1],
     [1, 1, 1, 1, 1, 1, 1, 1],
     [1, 1, 1, 1, 1, 1, 1, 1],
     [1, 1, 1, 1, 1, 1, 1, 1],
     [1, 1, 1, 1, 1, 1, 1, 1],
     [1, 1, 1, 1, 1, 1, 1, 1],
     [1, 1, 1, 1, 1, 1, 1, 1],
     [1, 1, 1, 1, 1, 1, 1, 1],
     [1, 1, 1, 1, 1, 1, 1, 1],
     [1, 1, 1, 1, 1, 1, 1, 1],
     [1, 1, 1, 1, 1, 1, 1, 1],
     [1, 1, 1, 1, 1, 1, 1, 1],
     [1, 1, 1, 1, 1, 1, 1, 1],
     [1, 1, 1, 1, 1, 1, 1, 1],
     [1, 1, 1, 1, 1, 1, 1, 1],
     [1, 1, 1, 1, 1, 1, 1, 1],
     [1, 1, 1, 1, 1, 1, 1, 1],
     [1, 1, 1, 1, 1, 1, 1, 1],
     [1, 1, 1, 1, 1, 1, 1, 1],
     [1, 1, 1, 1, 1, 1, 1, 1],
     [1, 1, 1, 1, 1, 1, 1, 1],
     [1, 1, 1, 1, 1, 1, 1, 1],
     [1, 1, 1, 1, 1, 1, 1, 1],
     [1, 1, 1, 1, 1, 1, 1, 1],
     [1, 1, 1, 1, 1, 1, 1, 1],
     [1, 1, 1, 1, 1, 1, 1, 1],
     [1, 1, 1, 1, 1, 1, 1, 1],
     [1, 1, 1, 1, 1, 1, 1, 1],
     [1, 1, 1, 1, 1, 1, 1, 1],
     [1, 1, 1, 1, 1, 1, 1, 1],
     [1, 1, 1, 1, 1, 1, 1, 1],
     [1, 1, 1, 1, 1, 1, 1, 1],
     [1, 1, 1, 1, 1, 1, 1, 1],
     [1, 1, 1, 1, 1, 1, 1, 1],
     [1, 1, 1, 1, 1, 1, 1, 1],
     [1, 1, 1, 1, 1, 1, 1, 1],
     [1, 1, 1, 1, 1, 1, 1, 1],
     [1, 1, 1, 1, 1, 1, 1, 1],
     [1, 1, 1, 1, 1, 1, 1, 1],
     [1, 1, 1, 1, 1, 1, 1, 1],
     [1, 1, 1, 1, 1, 1, 1, 1],
     [1, 1, 1, 1, 1, 1, 1, 1],
     [1, 1, 1, 1, 1, 1, 1, 1],
     [1, 1, 1, 1, 1, 1, 1, 1],
     [1, 1, 1, 1, 1, 1, 1, 1],
     [1, 1, 1, 1, 1, 1, 1, 1],
     [1, 1, 1, 1, 1, 1, 1, 1],
     [1, 1, 1, 1, 1, 1, 1, 1],
     [1, 1, 1, 1, 1, 1, 1, 1],
     [1, 1, 1, 1, 1, 1, 1, 1],
     [1, 1, 1, 1, 1, 1, 1, 1],
     [1, 1, 1, 1, 1, 1, 1, 1],
     [1, 1, 1, 1, 1, 1, 1, 1],
     [1, 1, 1, 1, 1, 1, 1, 1],
     [1, 1, 1, 1, 1, 1, 1, 1],
     [1, 1, 1, 1, 1, 1, 1, 1],
     [1, 1, 1, 1, 1, 1, 1, 1],
     [1, 1, 1, 1, 1, 1, 1, 1],
     [1, 1, 1, 1, 1, 1, 1, 1],
     [1, 1, 1, 1, 1, 1, 1, 1],
     [1, 1, 1, 1, 1, 1, 1, 1],
     [1, 1, 1, 1, 1, 1, 1, 1],
     [1, 1, 1, 1, 1, 1, 1, 1],
     [1, 1, 1, 1, 1, 1, 1, 1],
     [1, 1, 1, 1, 1, 1, 1, 1],
     [1, 1, 1, 1, 1, 1, 1, 1],
     [1, 1, 1, 1, 1, 1, 1, 1],
     [1, 1, 1, 1, 1, 1, 1, 1],
     [1, 1, 1, 1, 1, 1, 1, 1],
     [1, 1, 1, 1, 1, 1, 1, 1],
     [1, 1, 1, 1, 1, 1, 1, 1],
     [1, 1, 1, 1, 1, 1, 1, 1],
     [1, 1, 1, 1, 1, 1, 1, 1],
     [1, 1, 1, 1, 1, 1, 1, 1],
     [1, 1, 1, 1, 1, 1, 1, 1],
     [1, 1, 1, 1, 1, 1, 1, 1],
     [1, 1, 1, 1, 1, 1, 1, 1],
     [1, 1, 1, 1, 1, 1, 1, 1],
     [1, 1, 1, 1, 1, 1, 1, 1],
     [1, 1, 1, 1, 1, 1, 1, 1],
     [1, 1, 1, 1, 1, 1, 1, 1],
     [1, 1, 1, 1, 1, 1, 1, 1],
     [1, 1, 1, 1, 1, 1, 1, 1],
     [1, 1, 1, 1, 1, 1, 1, 1],
     [1, 1, 1, 1, 1, 1, 1, 1],
     [1, 1, 1, 1, 1, 1, 1, 1],
     [1, 1, 1, 1, 1, 1, 1, 1],
     [1, 1, 1, 1, 1, 1, 1, 1],
     [1, 1, 1, 1, 1, 1, 1, 1],
     [1, 1, 1, 1, 1, 1, 1, 1],
     [1, 1, 1, 1, 1, 1, 1, 1],
     [1, 1, 1, 1, 1, 1, 1, 1],
     [1, 1, 1, 1, 1, 1, 1, 1],
     [1, 1, 1, 1, 1, 1, 1, 1],
     [1, 1, 1, 1, 1, 1, 1, 1],
     [1, 1, 1, 1, 1, 1, 1, 1],
     [1, 1, 1, 1, 1, 1, 1, 1],
     [1, 1, 1, 1, 1, 1, 1, 1],
     [1, 1, 1, 1, 1, 1, 1, 1]]"

definition sup_cond_spaces_12 :: "int list list" where
  "sup_cond_spaces_12 =
    [[1, 1, 1, 1, 1, 1, 1, 1],
     [1, 1, 1, 1, 1, 1, 1, 1],
     [1, 1, 1, 1, 1, 1, 1, 1],
     [1, 1, 1, 1, 1, 1, 1, 1],
     [1, 1, 1, 1, 1, 1, 1, 1],
     [1, 1, 1, 1, 1, 1, 1, 1],
     [1, 1, 1, 1, 1, 1, 1, 1],
     [1, 1, 1, 1, 1, 1, 1, 1],
     [1, 1, 1, 1, 1, 1, 1, 1],
     [1, 1, 1, 1, 1, 1, 1, 1],
     [1, 1, 1, 1, 1, 1, 1, 1],
     [1, 1, 1, 1, 1, 1, 1, 1],
     [1, 1, 1, 1, 1, 1, 1, 1],
     [1, 1, 1, 1, 1, 1, 1, 1],
     [1, 1, 1, 1, 1, 1, 1, 1],
     [1, 1, 1, 1, 1, 1, 1, 1],
     [1, 1, 1, 1, 1, 1, 1, 1],
     [1, 1, 1, 1, 1, 1, 1, 1],
     [1, 1, 1, 1, 1, 1, 1, 1],
     [1, 1, 1, 1, 1, 1, 1, 1],
     [1, 1, 1, 1, 1, 1, 1, 1],
     [1, 1, 1, 1, 1, 1, 1, 1],
     [1, 1, 1, 1, 1, 1, 1, 1],
     [1, 1, 1, 1, 1, 1, 1, 1],
     [1, 1, 1, 1, 1, 1, 1, 1],
     [1, 1, 1, 1, 1, 1, 1, 1],
     [1, 1, 1, 1, 1, 1, 1, 1],
     [1, 1, 1, 1, 1, 1, 1, 1],
     [1, 1, 1, 1, 1, 1, 1, 1],
     [1, 1, 1, 1, 1, 1, 1, 1],
     [1, 1, 1, 1, 1, 1, 1, 1],
     [1, 1, 1, 1, 1, 1, 1, 1],
     [1, 1, 1, 1, 1, 1, 1, 1],
     [1, 1, 1, 1, 1, 1, 1, 1],
     [1, 1, 1, 1, 1, 1, 1, 1],
     [1, 1, 1, 1, 1, 1, 1, 1],
     [1, 1, 1, 1, 1, 1, 1, 1],
     [1, 1, 1, 1, 1, 1, 1, 1],
     [1, 1, 1, 1, 1, 1, 1, 1],
     [1, 1, 1, 1, 1, 1, 1, 1],
     [1, 1, 1, 1, 1, 1, 1, 1],
     [1, 1, 1, 1, 1, 1, 1, 1],
     [1, 1, 1, 1, 1, 1, 1, 1],
     [1, 1, 1, 1, 1, 1, 1, 1],
     [1, 1, 1, 1, 1, 1, 1, 1],
     [1, 1, 1, 1, 1, 1, 1, 1],
     [1, 1, 1, 1, 1, 1, 1, 1],
     [1, 1, 1, 1, 1, 1, 1, 1],
     [1, 1, 1, 1, 1, 1, 1, 1],
     [1, 1, 1, 1, 1, 1, 1, 1],
     [1, 1, 1, 1, 1, 1, 1, 1],
     [1, 1, 1, 1, 1, 1, 1, 1],
     [1, 1, 1, 1, 1, 1, 1, 1],
     [1, 1, 1, 1, 1, 1, 1, 1],
     [1, 1, 1, 1, 1, 1, 1, 1],
     [1, 1, 1, 1, 1, 1, 1, 1],
     [1, 1, 1, 1, 1, 1, 1, 1],
     [1, 1, 1, 1, 1, 1, 1, 1],
     [1, 1, 1, 1, 1, 1, 1, 1],
     [1, 1, 1, 1, 1, 1, 1, 1],
     [1, 1, 1, 1, 1, 1, 1, 1],
     [1, 1, 1, 1, 1, 1, 1, 1],
     [1, 1, 1, 1, 1, 1, 1, 1],
     [1, 1, 1, 1, 1, 1, 1, 1],
     [1, 1, 1, 1, 1, 1, 1, 1],
     [1, 1, 1, 1, 1, 1, 1, 1],
     [1, 1, 1, 1, 1, 1, 1, 1],
     [1, 1, 1, 1, 1, 1, 1, 1],
     [1, 1, 1, 1, 1, 1, 1, 1],
     [1, 1, 1, 1, 1, 1, 1, 1],
     [1, 1, 1, 1, 1, 1, 1, 1],
     [1, 1, 1, 1, 1, 1, 1, 1],
     [1, 1, 1, 1, 1, 1, 1, 1],
     [1, 1, 1, 1, 1, 1, 1, 1],
     [1, 1, 1, 1, 1, 1, 1, 1],
     [1, 1, 1, 1, 1, 1, 1, 1],
     [1, 1, 1, 1, 1, 1, 1, 1],
     [1, 1, 1, 1, 1, 1, 1, 1],
     [1, 1, 1, 1, 1, 1, 1, 1],
     [1, 1, 1, 1, 1, 1, 1, 1],
     [1, 1, 1, 1, 1, 1, 1, 1],
     [1, 1, 1, 1, 1, 1, 1, 1],
     [1, 1, 1, 1, 1, 1, 1, 1],
     [1, 1, 1, 1, 1, 1, 1, 1],
     [1, 1, 1, 1, 1, 1, 1, 1],
     [1, 1, 1, 1, 1, 1, 1, 1],
     [1, 1, 1, 1, 1, 1, 1, 1],
     [1, 1, 1, 1, 1, 1, 1, 1],
     [1, 1, 1, 1, 1, 1, 1, 1],
     [1, 1, 1, 1, 1, 1, 1, 1],
     [1, 1, 1, 1, 1, 1, 1, 1],
     [1, 1, 1, 1, 1, 1, 1, 1],
     [1, 1, 1, 1, 1, 1, 1, 1],
     [1, 1, 1, 1, 1, 1, 1, 1],
     [1, 1, 1, 1, 1, 1, 1, 1],
     [1, 1, 1, 1, 1, 1, 1, 1],
     [1, 1, 1, 1, 1, 1, 1, 1],
     [1, 1, 1, 1, 1, 1, 1, 1],
     [1, 1, 1, 1, 1, 1, 1, 1],
     [1, 1, 1, 1, 1, 1, 1, 1],
     [1, 1, 1, 1, 1, 1, 1, 1],
     [1, 1, 1, 1, 1, 1, 1, 1],
     [1, 1, 1, 1, 1, 1, 1, 1],
     [1, 1, 1, 1, 1, 1, 1, 1],
     [1, 1, 1, 1, 1, 1, 1, 1],
     [1, 1, 1, 1, 1, 1, 1, 1],
     [1, 1, 1, 1, 1, 1, 1, 1],
     [1, 1, 1, 1, 1, 1, 1, 1],
     [1, 1, 1, 1, 1, 1, 1, 1],
     [1, 1, 1, 1, 1, 1, 1, 1],
     [1, 1, 1, 1, 1, 1, 1, 1],
     [1, 1, 1, 1, 1, 1, 1, 1],
     [1, 1, 1, 1, 1, 1, 1, 1],
     [1, 1, 1, 1, 1, 1, 1, 1],
     [1, 1, 1, 1, 1, 1, 1, 1],
     [1, 1, 1, 1, 1, 1, 1, 1],
     [1, 1, 1, 1, 1, 1, 1, 1],
     [1, 1, 1, 1, 1, 1, 1, 1],
     [1, 1, 1, 1, 1, 1, 1, 1],
     [1, 1, 1, 1, 1, 1, 1, 1],
     [1, 1, 1, 1, 1, 1, 1, 1],
     [1, 1, 1, 1, 1, 1, 1, 1],
     [1, 1, 1, 1, 1, 1, 1, 1],
     [1, 1, 1, 1, 1, 1, 1, 1],
     [1, 1, 1, 1, 1, 1, 1, 1],
     [1, 1, 1, 1, 1, 1, 1, 1],
     [1, 1, 1, 1, 1, 1, 1, 1],
     [1, 1, 1, 1, 1, 1, 1, 1],
     [1, 1, 1, 1, 1, 1, 1, 1],
     [1, 1, 1, 1, 1, 1, 1, 1],
     [1, 1, 1, 1, 1, 1, 1, 1],
     [1, 1, 1, 1, 1, 1, 1, 1],
     [1, 1, 1, 1, 1, 1, 1, 1],
     [1, 1, 1, 1, 1, 1, 1, 1],
     [1, 1, 1, 1, 1, 1, 1, 1],
     [1, 1, 1, 1, 1, 1, 1, 1],
     [1, 1, 1, 1, 1, 1, 1, 1],
     [1, 1, 1, 1, 1, 1, 1, 1],
     [1, 1, 1, 1, 1, 1, 1, 1],
     [1, 1, 1, 1, 1, 1, 1, 1],
     [1, 1, 1, 1, 1, 1, 1, 1],
     [1, 1, 1, 1, 1, 1, 1, 1],
     [1, 1, 1, 1, 1, 1, 1, 1],
     [1, 1, 1, 1, 1, 1, 1, 1],
     [1, 1, 1, 1, 1, 1, 1, 1],
     [1, 1, 1, 1, 1, 1, 1, 1],
     [1, 1, 1, 1, 1, 1, 1, 0],
     [0, 0, 0, 0, 0, 0, 0, 0],
     [0, 0, 0, 0, 0, 0, 0, 0],
     [0, 0, 0, 0, 0, 0, 0, 0]]"

definition sup_cond_spaces_13 :: "int list list" where
  "sup_cond_spaces_13 =
    [[0, 0, 0, 0, 0, 0, 0, 0],
     [0, 0, 0, 0, 0, 0, 0, 0],
     [0, 0, 0, 0, 0, 0, 0, 0],
     [0, 0, 0, 0, 0, 0, 0, 0],
     [0, 0, 0, 0, 0, 0, 0, 0],
     [0, 0, 0, 0, 0, 0, 0, 0],
     [0, 0, 0, 0, 0, 0, 0, 0],
     [0, 0, 0, 0, 0, 0, 0, 0],
     [0, 0, 0, 0, 0, 0, 0, 0],
     [0, 0, 0, 0, 0, 0, 0, 0],
     [0, 0, 0, 0, 0, 0, 0, 0],
     [0, 0, 0, 0, 0, 0, 0, 0],
     [0, 0, 0, 0, 0, 0, 0, 0],
     [0, 0, 0, 0, 0, 0, 0, 0],
     [0, 0, 0, 0, 0, 0, 0, 0],
     [0, 0, 0, 0, 0, 0, 0, 0],
     [0, 0, 0, 0, 0, 0, 0, 0],
     [0, 0, 0, 0, 0, 0, 0, 0],
     [0, 0, 0, 0, 0, 0, 0, 0],
     [0, 0, 0, 0, 0, 0, 0, 0],
     [0, 0, 0, 0, 0, 0, 0, 0],
     [0, 0, 0, 0, 0, 0, 0, 0],
     [0, 0, 0, 0, 0, 0, 0, 0],
     [0, 0, 0, 0, 0, 0, 0, 0],
     [0, 0, 0, 0, 0, 0, 0, 0],
     [0, 0, 0, 0, 0, 0, 0, 0],
     [0, 0, 0, 0, 0, 0, 0, 0],
     [0, 0, 0, 0, 0, 0, 0, 0],
     [0, 0, 0, 0, 0, 0, 0, 0],
     [0, 0, 0, 0, 0, 0, 0, 0],
     [0, 0, 0, 0, 0, 0, 0, 0],
     [0, 0, 0, 0, 0, 0, 0, 0],
     [0, 0, 0, 0, 0, 0, 0, 0],
     [0, 0, 0, 0, 0, 0, 0, 0],
     [0, 0, 0, 0, 0, 0, 0, 0],
     [0, 0, 0, 0, 0, 0, 0, 0],
     [0, 0, 0, 0, 0, 0, 0, 0],
     [0, 0, 0, 0, 0, 0, 0, 0],
     [0, 0, 0, 0, 0, 0, 0, 0],
     [0, 0, 0, 0, 0, 0, 0, 0],
     [0, 0, 0, 0, 0, 0, 0, 0],
     [0, 0, 0, 0, 0, 0, 0, 0],
     [0, 0, 0, 0, 0, 0, 0, 0],
     [0, 0, 0, 0, 0, 0, 0, 0],
     [0, 0, 0, 0, 0, 0, 0, 0],
     [0, 0, 0, 0, 0, 0, 0, 0],
     [0, 0, 0, 0, 0, 0, 0, 0],
     [0, 0, 0, 0, 0, 0, 0, 0],
     [0, 0, 0, 0, 0, 0, 0, 0],
     [0, 0, 0, 0, 0, 0, 0, 0],
     [0, 0, 0, 0, 0, 0, 0, 0],
     [0, 0, 0, 0, 0, 0, 0, 0],
     [0, 0, 0, 0, 0, 0, 0, 0],
     [0, 0, 0, 0, 0, 0, 0, 0],
     [0, 0, 0, 0, 0, 0, 0, 0],
     [0, 0, 0, 0, 0, 0, 0, 0],
     [0, 0, 0, 0, 0, 0, 0, 0],
     [0, 0, 0, 0, 0, 0, 0, 0],
     [0, 0, 0, 0, 0, 0, 0, 0],
     [0, 0, 0, 0, 0, 0, 0, 0],
     [0, 0, 0, 0, 0, 0, 0, 0],
     [0, 0, 0, 0, 0, 0, 0, 0],
     [0, 0, 0, 0, 0, 0, 0, 0],
     [0, 0, 0, 0, 0, 0, 0, 0],
     [0, 0, 0, 0, 0, 0, 0, 0],
     [0, 0, 0, 0, 0, 0, 0, 0],
     [0, 0, 0, 0, 0, 0, 0, 0],
     [0, 0, 0, 0, 0, 0, 0, 0],
     [0, 0, 0, 0, 0, 0, 0, 0],
     [0, 0, 0, 0, 0, 0, 0, 0],
     [0, 0, 0, 0, 0, 0, 0, 0],
     [0, 0, 0, 0, 0, 0, 0, 0],
     [0, 0, 0, 0, 0, 0, 0, 0],
     [0, 0, 0, 0, 0, 0, 0, 0],
     [0, 0, 0, 0, 0, 0, 0, 0],
     [0, 0, 0, 0, 0, 0, 0, 0],
     [0, 0, 0, 0, 0, 0, 0, 0],
     [0, 0, 0, 0, 0, 0, 0, 0],
     [0, 0, 0, 0, 0, 0, 0, 0],
     [0, 0, 0, 0, 0, 0, 0, 0],
     [0, 0, 0, 0, 0, 0, 0, 0],
     [0, 0, 0, 0, 0, 0, 0, 0],
     [0, 0, 0, 0, 0, 0, 0, 0],
     [0, 0, 0, 0, 0, 0, 0, 0],
     [0, 0, 0, 0, 0, 0, 0, 0],
     [0, 0, 0, 0, 0, 0, 0, 0],
     [0, 0, 0, 0, 0, 0, 0, 0],
     [0, 0, 0, 0, 0, 0, 0, 0],
     [0, 0, 0, 0, 0, 0, 0, 0],
     [0, 0, 0, 0, 0, 0, 0, 0],
     [0, 0, 0, 0, 0, 0, 0, 0],
     [0, 0, 0, 0, 0, 0, 0, 0],
     [0, 0, 0, 0, 0, 0, 0, 0],
     [0, 0, 0, 0, 0, 0, 0, 0],
     [0, 0, 0, 0, 0, 0, 0, 0],
     [0, 0, 0, 0, 0, 0, 0, 0],
     [0, 0, 0, 0, 0, 0, 0, 0],
     [0, 0, 0, 0, 0, 0, 0, 0],
     [0, 0, 0, 0, 0, 0, 0, 0],
     [0, 0, 0, 0, 0, 0, 0, 0],
     [0, 0, 0, 0, 0, 0, 0, 0],
     [0, 0, 0, 0, 0, 0, 0, 0],
     [0, 0, 0, 0, 0, 0, 0, 0],
     [0, 0, 0, 0, 0, 0, 0, 0],
     [0, 0, 0, 0, 0, 0, 0, 0],
     [0, 0, 0, 0, 0, 0, 0, 0],
     [0, 0, 0, 0, 0, 0, 0, 0],
     [0, 0, 0, 0, 0, 0, 0, 0],
     [0, 0, 0, 0, 0, 0, 0, 0],
     [0, 0, 0, 0, 0, 0, 0, 0],
     [0, 0, 0, 0, 0, 0, 0, 0],
     [0, 0, 0, 0, 0, 0, 0, 0],
     [0, 0, 0, 0, 0, 0, 0, 0],
     [0, 0, 0, 0, 0, 0, 0, 0],
     [0, 0, 0, 0, 0, 0, 0, 0],
     [0, 0, 0, 0, 0, 0, 0, 0],
     [0, 0, 0, 0, 0, 0, 0, 0],
     [0, 0, 0, 0, 0, 0, 0, 0],
     [0, 0, 0, 0, 0, 0, 0, 0],
     [0, 0, 0, 0, 0, 0, 0, 0],
     [0, 0, 0, 0, 0, 0, 0, 0],
     [0, 0, 0, 0, 0, 0, 0, 0],
     [0, 0, 0, 0, 0, 0, 0, 0],
     [0, 0, 0, 0, 0, 0, 0, 0],
     [0, 0, 0, 0, 0, 0, 0, 0],
     [0, 0, 0, 0, 0, 0, 0, 0],
     [0, 0, 0, 0, 0, 0, 0, 0],
     [0, 0, 0, 0, 0, 0, 0, 0],
     [0, 0, 0, 0, 0, 0, 0, 0],
     [0, 0, 0, 0, 0, 0, 0, 0],
     [0, 0, 0, 0, 0, 0, 0, 0],
     [0, 0, 0, 0, 0, 0, 0, 0],
     [0, 0, 0, 0, 0, 0, 0, 0],
     [0, 0, 0, 0, 0, 0, 0, 0],
     [0, 0, 0, 0, 0, 0, 0, 0],
     [0, 0, 0, 0, 0, 0, 0, 0],
     [0, 0, 0, 0, 0, 0, 0, 0],
     [0, 0, 0, 0, 0, 0, 0, 0],
     [0, 0, 0, 0, 0, 0, 0, 0],
     [0, 0, 0, 0, 0, 0, 0, 0],
     [0, 0, 0, 0, 0, 0, 0, 0],
     [0, 0, 0, 0, 0, 0, 0, 0],
     [0, 0, 0, 0, 0, 0, 0, 0],
     [0, 0, 0, 0, 0, 0, 0, 0],
     [0, 0, 0, 0, 0, 0, 0, 0],
     [0, 0, 0, 0, 0, 0, 0, 0],
     [0, 0, 0, 0, 0, 0, 0, 0],
     [0, 0, 0, 0, 0, 0, 0, 0],
     [0, 0, 0, 0, 0, 0, 0, 0],
     [0, 0, 0, 0, 0, 0, 0, 0]]"

definition sup_cond_spaces_14 :: "int list list" where
  "sup_cond_spaces_14 =
    [[0, 0, 0, 0, 0, 0, 0, 0],
     [0, 0, 0, 0, 0, 0, 0, 0],
     [0, 0, 0, 0, 0, 0, 0, 0],
     [0, 0, 0, 0, 0, 0, 0, 0],
     [0, 0, 0, 0, 0, 0, 0, 0],
     [0, 0, 0, 0, 0, 0, 0, 0],
     [0, 0, 0, 0, 0, 0, 0, 0],
     [0, 0, 0, 0, 0, 0, 0, 0],
     [0, 0, 0, 0, 0, 0, 0, 0],
     [0, 0, 0, 0, 0, 0, 0, 0],
     [0, 0, 0, 0, 0, 0, 0, 0],
     [0, 0, 0, 0, 0, 0, 0, 0],
     [0, 0, 0, 0, 0, 0, 0, 0],
     [0, 0, 0, 0, 0, 0, 0, 0],
     [0, 0, 0, 0, 0, 0, 0, 0],
     [0, 0, 0, 0, 0, 0, 0, 0],
     [0, 0, 0, 0, 0, 0, 0, 0],
     [0, 0, 0, 0, 0, 0, 0, 0],
     [0, 0, 0, 0, 0, 0, 0, 0],
     [0, 0, 0, 0, 0, 0, 0, 0],
     [0, 0, 0, 0, 0, 0, 0, 0],
     [0, 0, 0, 0, 0, 0, 0, 0],
     [0, 0, 0, 0, 0, 0, 0, 0],
     [0, 0, 0, 0, 0, 0, 0, 0],
     [0, 0, 0, 0, 0, 0, 0, 0],
     [0, 0, 0, 0, 0, 0, 0, 0],
     [0, 0, 0, 0, 0, 0, 0, 0],
     [0, 0, 0, 0, 0, 0, 0, 0],
     [0, 0, 0, 0, 0, 0, 0, 0],
     [0, 0, 0, 0, 0, 0, 0, 0],
     [0, 0, 0, 0, 0, 0, 0, 0],
     [0, 0, 0, 0, 0, 0, 0, 0],
     [0, 0, 0, 0, 0, 0, 0, 0],
     [0, 0, 0, 0, 0, 0, 0, 0],
     [0, 0, 0, 0, 0, 0, 0, 0],
     [0, 0, 0, 0, 0, 0, 0, 0],
     [0, 0, 0, 0, 0, 0, 0, 0],
     [0, 0, 0, 0, 0, 0, 0, 0],
     [0, 0, 0, 0, 0, 0, 0, 0],
     [0, 0, 0, 0, 0, 0, 0, 0],
     [0, 0, 0, 0, 0, 0, 0, 0],
     [0, 0, 0, 0, 0, 0, 0, 0],
     [0, 0, 0, 0, 0, 0, 0, 0],
     [0, 0, 0, 0, 0, 0, 0, 0],
     [0, 0, 0, 0, 0, 0, 0, 0],
     [0, 0, 0, 0, 0, 0, 0, 0],
     [0, 0, 0, 0, 0, 0, 0, 0],
     [0, 0, 0, 0, 0, 0, 0, 0],
     [0, 0, 0, 0, 0, 0, 0, 0],
     [0, 0, 0, 0, 0, 0, 0, 0],
     [0, 0, 0, 0, 0, 0, 0, 0],
     [0, 0, 0, 0, 0, 0, 0, 0],
     [0, 0, 0, 0, 0, 0, 0, 0],
     [0, 0, 0, 0, 0, 0, 0, 0],
     [0, 0, 0, 0, 0, 0, 0, 0],
     [0, 0, 0, 0, 0, 0, 0, 0],
     [0, 0, 0, 0, 0, 0, 0, 0],
     [0, 0, 0, 0, 0, 0, 0, 0],
     [0, 0, 0, 0, 0, 0, 0, 0],
     [0, 0, 0, 0, 0, 0, 0, 0],
     [0, 0, 0, 0, 0, 0, 0, 0],
     [0, 0, 0, 0, 0, 0, 0, 0],
     [0, 0, 0, 0, 0, 0, 0, 0],
     [0, 0, 0, 0, 0, 0, 0, 0],
     [0, 0, 0, 0, 0, 0, 0, 0],
     [0, 0, 0, 0, 0, 0, 0, 0],
     [0, 0, 0, 0, 0, 0, 0, 0],
     [0, 0, 0, 0, 0, 0, 0, 0],
     [0, 0, 0, 0, 0, 0, 0, 0],
     [0, 0, 0, 0, 0, 0, 0, 0],
     [0, 0, 0, 0, 0, 0, 0, 0],
     [0, 0, 0, 0, 0, 0, 0, 0],
     [0, 0, 0, 0, 0, 0, 0, 0],
     [0, 0, 0, 0, 0, 0, 0, 0],
     [0, 0, 0, 0, 0, 0, 0, 0],
     [0, 0, 0, 0, 0, 0, 0, 0],
     [0, 0, 0, 0, 0, 0, 0, 0],
     [0, 0, 0, 0, 0, 0, 0, 0],
     [0, 0, 0, 0, 0, 0, 0, 0],
     [0, 0, 0, 0, 0, 0, 0, 0],
     [0, 0, 0, 0, 0, 0, 0, 0],
     [0, 0, 0, 0, 0, 0, 0, 0],
     [0, 0, 0, 0, 0, 0, 0, 0],
     [0, 0, 0, 0, 0, 0, 0, 0],
     [0, 0, 0, 0, 0, 0, 0, 0],
     [0, 0, 0, 0, 0, 0, 0, 0],
     [0, 0, 0, 0, 0, 0, 0, 0],
     [0, 0, 0, 0, 0, 0, 0, 0],
     [0, 0, 0, 0, 0, 0, 0, 0],
     [0, 0, 0, 0, 0, 0, 0, 0],
     [0, 0, 0, 0, 0, 0, 0, 0],
     [0, 0, 0, 0, 0, 0, 0, 0],
     [0, 0, 0, 0, 0, 0, 0, 0],
     [0, 0, 0, 0, 0, 0, 0, 0],
     [0, 0, 0, 0, 0, 0, 0, 0],
     [0, 0, 0, 0, 0, 0, 0, 0],
     [0, 0, 0, 0, 0, 0, 0, 0],
     [0, 0, 0, 0, 0, 0, 0, 0],
     [0, 0, 0, 0, 0, 0, 0, 0],
     [0, 0, 0, 0, 0, 0, 0, 0],
     [0, 0, 0, 0, 0, 0, 0, 0],
     [0, 0, 0, 0, 0, 0, 0, 0],
     [0, 0, 0, 0, 0, 0, 0, 0],
     [0, 0, 0, 0, 0, 0, 0, 0],
     [0, 0, 0, 0, 0, 0, 0, 0],
     [0, 0, 0, 0, 0, 0, 0, 0],
     [0, 0, 0, 0, 0, 0, 0, 0],
     [0, 0, 0, 0, 0, 0, 0, 0],
     [0, 0, 0, 0, 0, 0, 0, 0],
     [0, 0, 0, 0, 0, 0, 0, 0],
     [0, 0, 0, 0, 0, 0, 0, 0],
     [0, 0, 0, 0, 0, 0, 0, 0],
     [0, 0, 0, 0, 0, 0, 0, 0],
     [0, 0, 0, 0, 0, 0, 0, 0],
     [0, 0, 0, 0, 0, 0, 0, 0],
     [0, 0, 0, 0, 0, 0, 0, 0],
     [0, 0, 0, 0, 0, 0, 0, 0],
     [0, 0, 0, 0, 0, 0, 0, 0],
     [0, 0, 0, 0, 0, 0, 0, 0],
     [0, 0, 0, 0, 0, 0, 0, 0],
     [0, 0, 0, 0, 0, 0, 0, 0],
     [0, 0, 0, 0, 0, 0, 0, 0],
     [0, 0, 0, 0, 0, 0, 0, 0],
     [0, 0, 0, 0, 0, 0, 0, 0],
     [0, 0, 0, 0, 0, 0, 0, 0],
     [0, 0, 0, 0, 0, 0, 0, 0],
     [0, 0, 0, 0, 0, 0, 0, 0],
     [0, 0, 0, 0, 0, 0, 0, 0],
     [0, 0, 0, 0, 0, 0, 0, 0],
     [0, 0, 0, 0, 0, 0, 0, 0],
     [0, 0, 0, 0, 0, 0, 0, 0],
     [0, 0, 0, 0, 0, 0, 0, 0],
     [0, 0, 0, 0, 0, 0, 0, 0],
     [0, 0, 0, 0, 0, 0, 0, 0],
     [0, 0, 0, 0, 0, 0, 0, 0],
     [0, 0, 0, 0, 0, 0, 0, 0],
     [0, 0, 0, 0, 0, 0, 0, 0],
     [0, 0, 0, 0, 0, 0, 0, 0],
     [0, 0, 0, 0, 0, 0, 0, 0],
     [0, 0, 0, 0, 0, 0, 0, 0],
     [0, 0, 0, 0, 0, 0, 0, 0],
     [0, 0, 0, 0, 0, 0, 0, 0],
     [0, 0, 0, 0, 0, 0, 0, 0],
     [0, 0, 0, 0, 0, 0, 0, 0],
     [0, 0, 0, 0, 0, 0, 0, 0],
     [0, 0, 0, 0, 0, 0, 0, 0],
     [0, 0, 0, 0, 0, 0, 0, 0],
     [0, 0, 0, 0, 0, 0, 0, 0],
     [0, 0, 0, 0, 0, 0, 0, 0],
     [0, 0, 0, 0, 0, 0, 0, 0]]"

definition sup_cond_spaces_15 :: "int list list" where
  "sup_cond_spaces_15 =
    [[0, 0, 0, 0, 0, 0, 0, 0],
     [0, 0, 0, 0, 0, 0, 0, 0],
     [0, 0, 0, 0, 0, 0, 0, 0],
     [0, 0, 0, 0, 0, 0, 0, 0],
     [0, 0, 0, 0, 0, 0, 0, 0],
     [0, 0, 0, 0, 0, 0, 0, 0],
     [0, 0, 0, 0, 0, 0, 0, 0],
     [0, 0, 0, 0, 0, 0, 0, 0],
     [0, 0, 0, 0, 0, 0, 0, 0],
     [0, 0, 0, 0, 0, 0, 0, 0],
     [0, 0, 0, 0, 0, 0, 0, 0],
     [0, 0, 0, 0, 0, 0, 0, 0],
     [0, 0, 0, 0, 0, 0, 0, 0],
     [0, 0, 0, 0, 0, 0, 0, 0],
     [0, 0, 0, 0, 0, 0, 0, 0],
     [0, 0, 0, 0, 0, 0, 0, 0],
     [0, 0, 0, 0, 0, 0, 0, 0],
     [0, 0, 0, 0, 0, 0, 0, 0],
     [0, 0, 0, 0, 0, 0, 0, 0],
     [0, 0, 0, 0, 0, 0, 0, 0],
     [0, 0, 0, 0, 0, 0, 0, 0],
     [0, 0, 0, 0, 0, 0, 0, 0],
     [0, 0, 0, 0, 0, 0, 0, 0],
     [0, 0, 0, 0, 0, 0, 0, 0],
     [0, 0, 0, 0, 0, 0, 0, 0],
     [0, 0, 0, 0, 0, 0, 0, 0],
     [0, 0, 0, 0, 0, 0, 0, 0],
     [0, 0, 0, 0, 0, 0, 0, 0],
     [0, 0, 0, 0, 0, 0, 0, 0],
     [0, 0, 0, 0, 0, 0, 0, 0],
     [0, 0, 0, 0, 0, 0, 0, 0],
     [0, 0, 0, 0, 0, 0, 0, 0],
     [0, 0, 0, 0, 0, 0, 0, 0],
     [0, 0, 0, 0, 0, 0, 0, 0],
     [0, 0, 0, 0, 0, 0, 0, 0],
     [0, 0, 0, 0, 0, 0, 0, 0],
     [0, 0, 0, 0, 0, 0, 0, 0],
     [0, 0, 0, 0, 0, 0, 0, 0],
     [0, 0, 0, 0, 0, 0, 0, 0],
     [0, 0, 0, 0, 0, 0, 0, 0],
     [0, 0, 0, 0, 0, 0, 0, 0],
     [0, 0, 0, 0, 0, 0, 0, 0],
     [0, 0, 0, 0, 0, 0, 0, 0],
     [0, 0, 0, 0, 0, 0, 0, 0],
     [0, 0, 0, 0, 0, 0, 0, 0],
     [0, 0, 0, 0, 0, 0, 0, 0],
     [0, 0, 0, 0, 0, 0, 0, 0],
     [0, 0, 0, 0, 0, 0, 0, 0],
     [0, 0, 0, 0, 0, 0, 0, 0],
     [0, 0, 0, 0, 0, 0, 0, 0],
     [0, 0, 0, 0, 0, 0, 0, 0],
     [0, 0, 0, 0, 0, 0, 0, 0],
     [0, 0, 0, 0, 0, 0, 0, 0],
     [0, 0, 0, 0, 0, 0, 0, 0],
     [0, 0, 0, 0, 0, 0, 0, 0],
     [0, 0, 0, 0, 0, 0, 0, 0],
     [0, 0, 0, 0, 0, 0, 0, 0],
     [0, 0, 0, 0, 0, 0, 0, 0],
     [0, 0, 0, 0, 0, 0, 0, 0],
     [0, 0, 0, 0, 0, 0, 0, 0],
     [0, 0, 0, 0, 0, 0, 0, 0],
     [0, 0, 0, 0, 0, 0, 0, 0],
     [0, 0, 0, 0, 0, 0, 0, 0],
     [0, 0, 0, 0, 0, 0, 0, 0],
     [0, 0, 0, 0, 0, 0, 0, 0],
     [0, 0, 0, 0, 0, 0, 0, 0],
     [0, 0, 0, 0, 0, 0, 0, 0],
     [0, 0, 0, 0, 0, 0, 0, 0],
     [0, 0, 0, 0, 0, 0, 0, 0],
     [0, 0, 0, 0, 0, 0, 0, 0],
     [0, 0, 0, 0, 0, 0, 0, 0],
     [0, 0, 0, 0, 0, 0, 0, 0],
     [0, 0, 0, 0, 0, 0, 0, 0],
     [0, 0, 0, 0, 0, 0, 0, 0],
     [0, 0, 0, 0, 0, 0, 0, 0],
     [0, 0, 0, 0, 0, 0, 0, 0],
     [0, 0, 0, 0, 0, 0, 0, 0],
     [0, 0, 0, 0, 0, 0, 0, 0],
     [0, 0, 0, 0, 0, 0, 0, 0],
     [0, 0, 0, 0, 0, 0, 0, 0],
     [0, 0, 0, 0, 0, 0, 0, 0],
     [0, 0, 0, 0, 0, 0, 0, 0],
     [0, 0, 0, 0, 0, 0, 0, 0],
     [0, 0, 0, 0, 0, 0, 0, 0],
     [0, 0, 0, 0, 0, 0, 0, 0],
     [0, 0, 0, 0, 0, 0, 0, 0],
     [0, 0, 0, 0, 0, 0, 0, 0],
     [0, 0, 0, 0, 0, 0, 0, 0],
     [0, 0, 0, 0, 0, 0, 0, 0],
     [0, 0, 0, 0, 0, 0, 0, 0],
     [0, 0, 0, 0, 0, 0, 0, 0],
     [0, 0, 0, 0, 0, 0, 0, 0],
     [0, 0, 0, 0, 0, 0, 0, 0],
     [0, 0, 0, 0, 0, 0, 0, 0],
     [0, 0, 0, 0, 0, 0, 0, 0],
     [0, 0, 0, 0, 0, 0, 0, 0],
     [0, 0, 0, 0, 0, 0, 0, 0],
     [0, 0, 0, 0, 0, 0, 0, 0],
     [0, 0, 0, 0, 0, 0, 0, 0],
     [0, 0, 0, 0, 0, 0, 0, 0],
     [0, 0, 0, 0, 0, 0, 0, 0],
     [0, 0, 0, 0, 0, 0, 0, 0],
     [0, 0, 0, 0, 0, 0, 0, 0],
     [0, 0, 0, 0, 0, 0, 0, 0],
     [0, 0, 0, 0, 0, 0, 0, 0],
     [0, 0, 0, 0, 0, 0, 0, 0],
     [0, 0, 0, 0, 0, 0, 0, 0],
     [0, 0, 0, 0, 0, 0, 0, 0],
     [0, 0, 0, 0, 0, 0, 0, 0],
     [0, 0, 0, 0, 0, 0, 0, 0],
     [0, 0, 0, 0, 0, 0, 0, 0],
     [0, 0, 0, 0, 0, 0, 0, 0],
     [0, 0, 0, 0, 0, 0, 0, 0],
     [0, 0, 0, 0, 0, 0, 0, 0],
     [0, 0, 0, 0, 0, 0, 0, 0],
     [0, 0, 0, 0, 0, 0, 0, 0],
     [0, 0, 0, 0, 0, 0, 0, 0],
     [0, 0, 0, 0, 0, 0, 0, 0],
     [0, 0, 0, 0, 0, 0, 0, 0],
     [0, 0, 0, 0, 0, 0, 0, 0],
     [0, 0, 0, 0, 0, 0, 0, 0],
     [0, 0, 0, 0, 0, 0, 0, 0],
     [0, 0, 0, 0, 0, 0, 0, 0],
     [0, 0, 0, 0, 0, 0, 0, 0],
     [0, 0, 0, 0, 0, 0, 0, 0],
     [0, 0, 0, 0, 0, 0, 0, 0],
     [0, 0, 0, 0, 0, 0, 0, 0],
     [0, 0, 0, 0, 0, 0, 0, 0],
     [0, 0, 0, 0, 0, 0, 0, 0],
     [0, 0, 0, 0, 0, 0, 0, 0],
     [0, 0, 0, 0, 0, 0, 0, 0],
     [0, 0, 0, 0, 0, 0, 0, 0],
     [0, 0, 0, 0, 0, 0, 0, 0],
     [0, 0, 0, 0, 0, 0, 0, 0],
     [0, 0, 0, 0, 0, 0, 0, 0],
     [0, 0, 0, 0, 0, 0, 0, 0],
     [0, 0, 0, 0, 0, 0, 0, 0],
     [0, 0, 0, 0, 0, 0, 0, 0],
     [0, 0, 0, 0, 0, 0, 0, 0],
     [0, 0, 0, 0, 0, 0, 0, 0],
     [0, 0, 0, 0, 0, 0, 0, 0],
     [0, 0, 0, 0, 0, 0, 0, 0],
     [0, 0, 0, 0, 0, 0, 0, 0],
     [0, 0, 0, 0, 0, 0, 0, 0],
     [0, 0, 0, 0, 0, 0, 0, 0],
     [0, 0, 0, 0, 0, 0, 0, 0],
     [0, 0, 0, 0, 0, 0, 0, 0],
     [0, 0, 0, 0, 0, 0, 0, 0],
     [0, 0, 0, 0, 0, 0, 0, 0],
     [0, 0, 0, 0, 0, 0, 0, 0]]"

definition sup_cond_spaces_16 :: "int list list" where
  "sup_cond_spaces_16 =
    [[0, 0, 0, 0, 0, 0, 0, 0],
     [0, 0, 0, 0, 0, 0, 0, 0],
     [0, 0, 0, 0, 0, 0, 0, 0],
     [0, 0, 0, 0, 0, 0, 0, 0],
     [0, 0, 0, 0, 0, 0, 0, 0],
     [0, 0, 0, 0, 0, 0, 0, 0],
     [0, 0, 0, 0, 0, 0, 0, 0],
     [0, 0, 0, 0, 0, 0, 0, 0],
     [0, 0, 0, 0, 0, 0, 0, 0],
     [0, 0, 0, 0, 0, 0, 0, 0],
     [0, 0, 0, 0, 0, 0, 0, 0],
     [0, 0, 0, 0, 0, 0, 0, 0],
     [0, 0, 0, 0, 0, 0, 0, 0],
     [0, 0, 0, 0, 0, 0, 0, 0],
     [0, 0, 0, 0, 0, 0, 0, 0],
     [0, 0, 0, 0, 0, 0, 0, 0],
     [0, 0, 0, 0, 0, 0, 0, 0],
     [0, 0, 0, 0, 0, 0, 0, 0],
     [0, 0, 0, 0, 0, 0, 0, 0],
     [0, 0, 0, 0, 0, 0, 0, 0],
     [0, 0, 0, 0, 0, 0, 0, 0],
     [0, 0, 0, 0, 0, 0, 0, 0],
     [0, 0, 0, 0, 0, 0, 0, 0],
     [0, 0, 0, 0, 0, 0, 0, 0],
     [0, 0, 0, 0, 0, 0, 0, 0],
     [0, 0, 0, 0, 0, 0, 0, 0],
     [0, 0, 0, 0, 0, 0, 0, 0],
     [0, 0, 0, 0, 0, 0, 0, 0],
     [0, 0, 0, 0, 0, 0, 0, 0],
     [0, 0, 0, 0, 0, 0, 0, 0],
     [0, 0, 0, 0, 0, 0, 0, 0],
     [0, 0, 0, 0, 0, 0, 0, 0],
     [0, 0, 0, 0, 0, 0, 0, 0],
     [0, 0, 0, 0, 0, 0, 0, 0],
     [0, 0, 0, 0, 0, 0, 0, 0],
     [0, 0, 0, 0, 0, 0, 0, 0],
     [0, 0, 0, 0, 0, 0, 0, 0],
     [0, 0, 0, 0, 0, 0, 0, 0],
     [0, 0, 0, 0, 0, 0, 0, 0],
     [0, 0, 0, 0, 0, 0, 0, 0],
     [0, 0, 0, 0, 0, 0, 0, 0],
     [0, 0, 0, 0, 0, 0, 0, 0],
     [0, 0, 0, 0, 0, 0, 0, 0],
     [0, 0, 0, 0, 0, 0, 0, 0],
     [0, 0, 0, 0, 0, 0, 0, 0],
     [0, 0, 0, 0, 0, 0, 0, 0],
     [0, 0, 0, 0, 0, 0, 0, 0],
     [0, 0, 0, 0, 0, 0, 0, 0],
     [0, 0, 0, 0, 0, 0, 0, 0],
     [0, 0, 0, 0, 0, 0, 0, 0],
     [0, 0, 0, 0, 0, 0, 0, 0],
     [0, 0, 0, 0, 0, 0, 0, 0],
     [0, 0, 0, 0, 0, 0, 0, 0],
     [0, 0, 0, 0, 0, 0, 0, 0],
     [0, 0, 0, 0, 0, 0, 0, 0],
     [0, 0, 0, 0, 0, 0, 0, 0],
     [0, 0, 0, 0, 0, 0, 0, 0],
     [0, 0, 0, 0, 0, 0, 0, 0],
     [0, 0, 0, 0, 0, 0, 0, 0],
     [0, 0, 0, 0, 0, 0, 0, 0],
     [0, 0, 0, 0, 0, 0, 0, 0],
     [0, 0, 0, 0, 0, 0, 0, 0],
     [0, 0, 0, 0, 0, 0, 0, 0],
     [0, 0, 0, 0, 0, 0, 0, 0],
     [0, 0, 0, 0, 0, 0, 0, 0],
     [0, 0, 0, 0, 0, 0, 0, 0],
     [0, 0, 0, 0, 0, 0, 0, 0],
     [0, 0, 0, 0, 0, 0, 0, 0],
     [0, 0, 0, 0, 0, 0, 0, 0],
     [0, 0, 0, 0, 0, 0, 0, 0],
     [0, 0, 0, 0, 0, 0, 0, 0],
     [0, 0, 0, 0, 0, 0, 0, 0],
     [0, 0, 0, 0, 0, 0, 0, 0],
     [0, 0, 0, 0, 0, 0, 0, 0],
     [0, 0, 0, 0, 0, 0, 0, 0],
     [0, 0, 0, 0, 0, 0, 0, 0],
     [0, 0, 0, 0, 0, 0, 0, 0],
     [0, 0, 0, 0, 0, 0, 0, 0],
     [0, 0, 0, 0, 0, 0, 0, 0],
     [0, 0, 0, 0, 0, 0, 0, 0],
     [0, 0, 0, 0, 0, 0, 0, 0],
     [0, 0, 0, 0, 0, 0, 0, 0],
     [0, 0, 0, 0, 0, 0, 0, 0],
     [0, 0, 0, 0, 0, 0, 0, 0],
     [0, 0, 0, 0, 0, 0, 0, 0],
     [0, 0, 0, 0, 0, 0, 0, 0],
     [0, 0, 0, 0, 0, 0, 0, 0],
     [0, 0, 0, 0, 0, 0, 0, 0],
     [0, 0, 0, 0, 0, 0, 0, 0],
     [0, 0, 0, 0, 0, 0, 0, 0],
     [0, 0, 0, 0, 0, 0, 0, 0],
     [0, 0, 0, 0, 0, 0, 0, 0],
     [0, 0, 0, 0, 0, 0, 0, 0],
     [0, 0, 0, 0, 0, 0, 0, 0],
     [0, 0, 0, 0, 0, 0, 0, 0],
     [0, 0, 0, 0, 0, 0, 0, 0],
     [0, 0, 0, 0, 0, 0, 0, 0],
     [0, 0, 0, 0, 0, 0, 0, 0],
     [0, 0, 0, 0, 0, 0, 0, 0],
     [0, 0, 0, 0, 0, 0, 0, 0],
     [0, 0, 0, 0, 0, 0, 0, 0],
     [0, 0, 0, 0, 0, 0, 0, 0],
     [0, 0, 0, 0, 0, 0, 0, 0],
     [0, 0, 0, 0, 0, 0, 0, 0],
     [0, 0, 0, 0, 0, 0, 0, 0],
     [0, 0, 0, 0, 0, 0, 0, 0],
     [0, 0, 0, 0, 0, 0, 0, 0],
     [0, 0, 0, 0, 0, 0, 0, 0],
     [0, 0, 0, 0, 0, 0, 0, 0],
     [0, 0, 0, 0, 0, 0, 0, 0],
     [0, 0, 0, 0, 0, 0, 0, 0],
     [0, 0, 0, 0, 0, 0, 0, 0],
     [0, 0, 0, 0, 0, 0, 0, 0],
     [0, 0, 0, 0, 0, 0, 0, 0],
     [0, 0, 0, 0, 0, 0, 0, 0],
     [0, 0, 0, 0, 0, 0, 0, 0],
     [0, 0, 0, 0, 0, 0, 0, 0],
     [0, 0, 0, 0, 0, 0, 0, 0],
     [0, 0, 0, 0, 0, 0, 0, 0],
     [0, 0, 0, 0, 0, 0, 0, 0],
     [0, 0, 0, 0, 0, 0, 0, 0],
     [0, 0, 0, 0, 0, 0, 0, 0],
     [0, 0, 0, 0, 0, 0, 0, 0],
     [0, 0, 0, 0, 0, 0, 0, 0],
     [0, 0, 0, 0, 0, 0, 0, 0],
     [0, 0, 0, 0, 0, 0, 0, 0],
     [0, 0, 0, 0, 0, 0, 0, 0],
     [0, 0, 0, 0, 0, 0, 0, 0],
     [0, 0, 0, 0, 0, 0, 0, 0],
     [0, 0, 0, 0, 0, 0, 0, 0],
     [0, 0, 0, 0, 0, 0, 0, 0],
     [0, 0, 0, 0, 0, 0, 0, 0],
     [0, 0, 0, 0, 0, 0, 0, 0],
     [0, 0, 0, 0, 0, 0, 0, 0],
     [0, 0, 0, 0, 0, 0, 0, 0],
     [0, 0, 0, 0, 0, 0, 0, 0],
     [0, 0, 0, 0, 0, 0, 0, 0],
     [0, 0, 0, 0, 0, 0, 0, 0],
     [0, 0, 0, 0, 0, 0, 0, 0],
     [0, 0, 0, 0, 0, 0, 0, 0],
     [0, 0, 0, 0, 0, 0, 0, 0],
     [0, 0, 0, 0, 0, 0, 0, 0],
     [0, 0, 0, 0, 0, 0, 0, 0],
     [0, 0, 0, 0, 0, 0, 0, 0],
     [0, 0, 0, 0, 0, 0, 0, 0],
     [0, 0, 0, 0, 0, 0, 0, 0],
     [0, 0, 0, 0, 0, 0, 0, 0],
     [0, 0, 0, 0, 0, 0, 0, 0],
     [0, 0, 0, 0, 0, 0, 0, 0],
     [0, 0, 0, 0, 0, 0, 0, 0]]"

definition sup_cond_spaces_17 :: "int list list" where
  "sup_cond_spaces_17 =
    [[0, 0, 0, 0, 0, 0, 0, 0],
     [0, 0, 0, 0, 0, 0, 0, 0],
     [0, 0, 0, 0, 0, 0, 0, 0],
     [0, 0, 0, 0, 0, 0, 0, 0],
     [0, 0, 0, 0, 0, 0, 0, 0],
     [0, 0, 0, 0, 0, 0, 0, 0],
     [0, 0, 0, 0, 0, 0, 0, 0],
     [0, 0, 0, 0, 0, 0, 0, 0],
     [0, 0, 0, 0, 0, 0, 0, 0],
     [0, 0, 0, 0, 0, 0, 0, 0],
     [0, 0, 0, 0, 0, 0, 0, 0],
     [0, 0, 0, 0, 0, 0, 0, 0],
     [0, 0, 0, 0, 0, 0, 0, 0],
     [0, 0, 0, 0, 0, 0, 0, 0],
     [0, 0, 0, 0, 0, 0, 0, 0],
     [0, 0, 0, 0, 0, 0, 0, 0],
     [0, 0, 0, 0, 0, 0, 0, 0],
     [0, 0, 0, 0, 0, 0, 0, 0],
     [0, 0, 0, 0, 0, 0, 0, 0],
     [0, 0, 0, 0, 0, 0, 0, 0],
     [0, 0, 0, 0, 0, 0, 0, 0],
     [0, 0, 0, 0, 0, 0, 0, 0],
     [0, 0, 0, 0, 0, 0, 0, 0],
     [0, 0, 0, 0, 0, 0, 0, 0],
     [0, 0, 0, 0, 0, 0, 0, 0],
     [0, 0, 0, 0, 0, 0, 0, 0],
     [0, 0, 0, 0, 0, 0, 0, 0],
     [0, 0, 0, 0, 0, 0, 0, 0],
     [0, 0, 0, 0, 0, 0, 0, 0],
     [0, 0, 0, 0, 0, 0, 0, 0],
     [0, 0, 0, 0, 0, 0, 0, 0],
     [0, 0, 0, 0, 0, 0, 0, 0],
     [0, 0, 0, 0, 0, 0, 0, 0],
     [0, 0, 0, 0, 0, 0, 0, 0],
     [0, 0, 0, 0, 0, 0, 0, 0],
     [0, 0, 0, 0, 0, 0, 0, 0],
     [0, 0, 0, 0, 0, 0, 0, 0],
     [0, 0, 0, 0, 0, 0, 0, 0],
     [0, 0, 0, 0, 0, 0, 0, 0],
     [0, 0, 0, 0, 0, 0, 0, 0],
     [0, 0, 0, 0, 0, 0, 0, 0],
     [0, 0, 0, 0, 0, 0, 0, 0],
     [0, 0, 0, 0, 0, 0, 0, 0],
     [0, 0, 0, 0, 0, 0, 0, 0],
     [0, 0, 0, 0, 0, 0, 0, 0],
     [0, 0, 0, 0, 0, 0, 0, 0],
     [0, 0, 0, 0, 0, 0, 0, 0],
     [0, 0, 0, 0, 0, 0, 0, 0],
     [0, 0, 0, 0, 0, 0, 0, 0],
     [0, 0, 0, 0, 0, 0, 0, 0],
     [0, 0, 0, 0, 0, 0, 0, 0],
     [0, 0, 0, 0, 0, 0, 0, 0],
     [0, 0, 0, 0, 0, 0, 0, 0],
     [0, 0, 0, 0, 0, 0, 0, 0],
     [0, 0, 0, 0, 0, 0, 0, 0],
     [0, 0, 0, 0, 0, 0, 0, 0],
     [0, 0, 0, 0, 0, 0, 0, 0],
     [0, 0, 0, 0, 0, 0, 0, 0],
     [0, 0, 0, 0, 0, 0, 0, 0],
     [0, 0, 0, 0, 0, 0, 0, 0],
     [0, 0, 0, 0, 0, 0, 0, 0],
     [0, 0, 0, 0, 0, 0, 0, 0],
     [0, 0, 0, 0, 0, 0, 0, 0],
     [0, 0, 0, 0, 0, 0, 0, 0],
     [0, 0, 0, 0, 0, 0, 0, 0],
     [0, 0, 0, 0, 0, 0, 0, 0],
     [0, 0, 0, 0, 0, 0, 0, 0],
     [0, 0, 0, 0, 0, 0, 0, 0],
     [0, 0, 0, 0, 0, 0, 0, 0],
     [0, 0, 0, 0, 0, 0, 0, 0],
     [0, 0, 0, 0, 0, 0, 0, 0],
     [0, 0, 0, 0, 0, 0, 0, 0],
     [0, 0, 0, 0, 0, 0, 0, 0],
     [0, 0, 0, 0, 0, 0, 0, 0],
     [0, 0, 0, 0, 0, 0, 0, 0],
     [0, 0, 0, 0, 0, 0, 0, 0],
     [0, 0, 0, 0, 0, 0, 0, 0],
     [0, 0, 0, 0, 0, 0, 0, 0],
     [0, 0, 0, 0, 0, 0, 0, 0],
     [0, 0, 0, 0, 0, 0, 0, 0],
     [0, 0, 0, 0, 0, 0, 0, 0],
     [0, 0, 0, 0, 0, 0, 0, 0],
     [0, 0, 0, 0, 0, 0, 0, 0],
     [0, 0, 0, 0, 0, 0, 0, 0],
     [0, 0, 0, 0, 0, 0, 0, 0],
     [0, 0, 0, 0, 0, 0, 0, 0],
     [0, 0, 0, 0, 0, 0, 0, 0],
     [0, 0, 0, 0, 0, 0, 0, 0],
     [0, 0, 0, 0, 0, 0, 0, 0],
     [0, 0, 0, 0, 0, 0, 0, 0],
     [0, 0, 0, 0, 0, 0, 0, 0],
     [0, 0, 0, 0, 0, 0, 0, 0],
     [0, 0, 0, 0, 0, 0, 0, 0],
     [0, 0, 0, 0, 0, 0, 0, 0],
     [0, 0, 0, 0, 0, 0, 0, 0],
     [0, 0, 0, 0, 0, 0, 0, 0],
     [0, 0, 0, 0, 0, 0, 0, 0],
     [0, 0, 0, 0, 0, 0, 0, 0],
     [0, 0, 0, 0, 0, 0, 0, 0],
     [0, 0, 0, 0, 0, 0, 0, 0],
     [0, 0, 0, 0, 0, 0, 0, 0],
     [0, 0, 0, 0, 0, 0, 0, 0],
     [0, 0, 0, 0, 0, 0, 0, 0],
     [0, 0, 0, 0, 0, 0, 0, 0],
     [0, 0, 0, 0, 0, 0, 0, 0],
     [0, 0, 0, 0, 0, 0, 0, 0],
     [0, 0, 0, 0, 0, 0, 0, 0],
     [0, 0, 0, 0, 0, 0, 0, 0],
     [0, 0, 0, 0, 0, 0, 0, 0],
     [0, 0, 0, 0, 0, 0, 0, 0],
     [0, 0, 0, 0, 0, 0, 0, 0],
     [0, 0, 0, 0, 0, 0, 0, 0],
     [0, 0, 0, 0, 0, 0, 0, 0],
     [0, 0, 0, 0, 0, 0, 0, 0],
     [0, 0, 0, 0, 0, 0, 0, 0],
     [0, 0, 0, 0, 0, 0, 0, 0],
     [0, 0, 0, 0, 0, 0, 0, 0],
     [0, 0, 0, 0, 0, 0, 0, 0],
     [0, 0, 0, 0, 0, 0, 0, 0],
     [0, 0, 0, 0, 0, 0, 0, 0],
     [0, 0, 0, 0, 0, 0, 0, 0],
     [0, 0, 0, 0, 0, 0, 0, 0],
     [0, 0, 0, 0, 0, 0, 0, 0],
     [0, 0, 0, 0, 0, 0, 0, 0],
     [0, 0, 0, 0, 0, 0, 0, 0],
     [0, 0, 0, 0, 0, 0, 0, 0],
     [0, 0, 0, 0, 0, 0, 0, 0],
     [0, 0, 0, 0, 0, 0, 0, 0],
     [0, 0, 0, 0, 0, 0, 0, 0],
     [0, 0, 0, 0, 0, 0, 0, 0],
     [0, 0, 0, 0, 0, 0, 0, 0],
     [0, 0, 0, 0, 0, 0, 0, 0],
     [0, 0, 0, 0, 0, 0, 0, 0],
     [0, 0, 0, 0, 0, 0, 0, 0],
     [0, 0, 0, 0, 0, 0, 0, 0],
     [0, 0, 0, 0, 0, 0, 0, 0],
     [0, 0, 0, 0, 0, 0, 0, 0],
     [0, 0, 0, 0, 0, 0, 0, 0],
     [0, 0, 0, 0, 0, 0, 0, 0],
     [0, 0, 0, 0, 0, 0, 0, 0],
     [0, 0, 0, 0, 0, 0, 0, 0],
     [0, 0, 0, 0, 0, 0, 0, 0],
     [0, 0, 0, 0, 0, 0, 0, 0],
     [0, 0, 0, 0, 0, 0, 0, 0],
     [0, 0, 0, 0, 0, 0, 0, 0],
     [0, 0, 0, 0, 0, 0, 0, 0],
     [0, 0, 0, 0, 0, 0, 0, 0],
     [0, 0, 0, 0, 0, 0, 0, 0],
     [0, 0, 0, 0, 0, 0, 0, 0],
     [0, 0, 0, 0, 0, 0, 0, 0]]"

definition sup_cond_spaces_18 :: "int list list" where
  "sup_cond_spaces_18 =
    [[0, 0, 0, 0, 0, 0, 0, 0],
     [0, 0, 0, 0, 0, 0, 0, 0],
     [0, 0, 0, 0, 0, 0, 0, 0],
     [0, 0, 0, 0, 0, 0, 0, 0],
     [0, 0, 0, 0, 0, 0, 0, 0],
     [0, 0, 0, 0, 0, 0, 0, 0],
     [0, 0, 0, 0, 0, 0, 0, 0],
     [0, 0, 0, 0, 0, 0, 0, 0],
     [0, 0, 0, 0, 0, 0, 0, 0],
     [0, 0, 0, 0, 0, 0, 0, 0],
     [0, 0, 0, 0, 0, 0, 0, 0],
     [0, 0, 0, 0, 0, 0, 0, 0],
     [0, 0, 0, 0, 0, 0, 0, 0],
     [0, 0, 0, 0, 0, 0, 0, 0],
     [0, 0, 0, 0, 0, 0, 0, 0],
     [0, 0, 0, 0, 0, 0, 0, 0],
     [0, 0, 0, 0, 0, 0, 0, 0],
     [0, 0, 0, 0, 0, 0, 0, 0],
     [0, 0, 0, 0, 0, 0, 0, 0],
     [0, 0, 0, 0, 0, 0, 0, 0],
     [0, 0, 0, 0, 0, 0, 0, 0],
     [0, 0, 0, 0, 0, 0, 0, 0],
     [0, 0, 0, 0, 0, 0, 0, 0],
     [0, 0, 0, 0, 0, 0, 0, 0],
     [0, 0, 0, 0, 0, 0, 0, 0],
     [0, 0, 0, 0, 0, 0, 0, 0],
     [0, 0, 0, 0, 0, 0, 0, 0],
     [0, 0, 0, 0, 0, 0, 0, 0],
     [0, 0, 0, 0, 0, 0, 0, 0],
     [0, 0, 0, 0, 0, 0, 0, 0],
     [0, 0, 0, 0, 0, 0, 0, 0],
     [0, 0, 0, 0, 0, 0, 0, 0],
     [0, 0, 0, 0, 0, 0, 0, 0],
     [0, 0, 0, 0, 0, 0, 0, 0],
     [0, 0, 0, 0, 0, 0, 0, 0],
     [0, 0, 0, 0, 0, 0, 0, 0],
     [0, 0, 0, 0, 0, 0, 0, 0],
     [0, 0, 0, 0, 0, 0, 0, 0],
     [0, 0, 0, 0, 0, 0, 0, 0],
     [0, 0, 0, 0, 0, 0, 0, 0],
     [0, 0, 0, 0, 0, 0, 0, 0],
     [0, 0, 0, 0, 0, 0, 0, 0],
     [0, 0, 0, 0, 0, 0, 0, 0],
     [0, 0, 0, 0, 0, 0, 0, 0],
     [0, 0, 0, 0, 0, 0, 0, 0],
     [0, 0, 0, 0, 0, 0, 0, 0],
     [0, 0, 0, 0, 0, 0, 0, 0],
     [0, 0, 0, 0, 0, 0, 0, 0],
     [0, 0, 0, 0, 0, 0, 0, 0],
     [0, 0, 0, 0, 0, 0, 0, 0],
     [0, 0, 0, 0, 0, 0, 0, 0],
     [0, 0, 0, 0, 0, 0, 0, 0],
     [0, 0, 0, 0, 0, 0, 0, 0],
     [0, 0, 0, 0, 0, 0, 0, 0],
     [0, 0, 0, 0, 0, 0, 0, 0],
     [0, 0, 0, 0, 0, 0, 0, 0],
     [0, 0, 0, 0, 0, 0, 0, 0],
     [0, 0, 0, 0, 0, 0, 0, 0],
     [0, 0, 0, 0, 0, 0, 0, 0],
     [0, 0, 0, 0, 0, 0, 0, 0],
     [0, 0, 0, 0, 0, 0, 0, 0],
     [0, 0, 0, 0, 0, 0, 0, 0],
     [0, 0, 0, 0, 0, 0, 0, 0],
     [0, 0, 0, 0, 0, 0, 0, 0],
     [0, 0, 0, 0, 0, 0, 0, 0],
     [0, 0, 0, 0, 0, 0, 0, 0],
     [0, 0, 0, 0, 0, 0, 0, 0],
     [0, 0, 0, 0, 0, 0, 0, 0],
     [0, 0, 0, 0, 0, 0, 0, 0],
     [0, 0, 0, 0, 0, 0, 0, 0],
     [0, 0, 0, 0, 0, 0, 0, 0],
     [0, 0, 0, 0, 0, 0, 0, 0],
     [0, 0, 0, 0, 0, 0, 0, 0],
     [0, 0, 0, 0, 0, 0, 0, 0],
     [0, 0, 0, 0, 0, 0, 0, 0],
     [0, 0, 0, 0, 0, 0, 0, 0],
     [0, 0, 0, 0, 0, 0, 0, 0],
     [0, 0, 0, 0, 0, 0, 0, 0],
     [0, 0, 0, 0, 0, 0, 0, 0],
     [0, 0, 0, 0, 0, 0, 0, 0],
     [0, 0, 0, 0, 0, 0, 0, 0],
     [0, 0, 0, 0, 0, 0, 0, 0],
     [0, 0, 0, 0, 0, 0, 0, 0],
     [0, 0, 0, 0, 0, 0, 0, 0],
     [0, 0, 0, 0, 0, 0, 0, 0],
     [0, 0, 0, 0, 0, 0, 0, 0],
     [0, 0, 0, 0, 0, 0, 0, 0],
     [0, 0, 0, 0, 0, 0, 0, 0],
     [0, 0, 0, 0, 0, 0, 0, 0],
     [0, 0, 0, 0, 0, 0, 0, 0],
     [0, 0, 0, 0, 0, 0, 0, 0],
     [0, 0, 0, 0, 0, 0, 0, 0],
     [0, 0, 0, 0, 0, 0, 0, 0],
     [0, 0, 0, 0, 0, 0, 0, 0],
     [0, 0, 0, 0, 0, 0, 0, 0],
     [0, 0, 0, 0, 0, 0, 0, 0],
     [0, 0, 0, 0, 0, 0, 0, 0],
     [0, 0, 0, 0, 0, 0, 0, 0],
     [0, 0, 0, 0, 0, 0, 0, 0],
     [0, 0, 0, 0, 0, 0, 0, 0],
     [0, 0, 0, 0, 0, 0, 0, 0],
     [0, 0, 0, 0, 0, 0, 0, 0],
     [0, 0, 0, 0, 0, 0, 0, 0],
     [0, 0, 0, 0, 0, 0, 0, 0],
     [0, 0, 0, 0, 0, 0, 0, 0],
     [0, 0, 0, 0, 0, 0, 0, 0],
     [0, 0, 0, 0, 0, 0, 0, 0],
     [0, 0, 0, 0, 0, 0, 0, 0],
     [0, 0, 0, 0, 0, 0, 0, 0],
     [0, 0, 0, 0, 0, 0, 0, 0],
     [0, 0, 0, 0, 0, 0, 0, 0],
     [0, 0, 0, 0, 0, 0, 0, 0],
     [0, 0, 0, 0, 0, 0, 0, 0],
     [0, 0, 0, 0, 0, 0, 0, 0],
     [0, 0, 0, 0, 0, 0, 0, 0],
     [0, 0, 0, 0, 0, 0, 0, 0],
     [0, 0, 0, 0, 0, 0, 0, 0],
     [0, 0, 0, 0, 0, 0, 0, 0],
     [0, 0, 0, 0, 0, 0, 0, 0],
     [0, 0, 0, 0, 0, 0, 0, 0],
     [0, 0, 0, 0, 0, 0, 0, 0],
     [0, 0, 0, 0, 0, 0, 0, 0],
     [0, 0, 0, 0, 0, 0, 0, 0],
     [0, 0, 0, 0, 0, 0, 0, 0],
     [0, 0, 0, 0, 0, 0, 0, 0],
     [0, 0, 0, 0, 0, 0, 0, 0],
     [0, 0, 0, 0, 0, 0, 0, 0],
     [0, 0, 0, 0, 0, 0, 0, 0],
     [0, 0, 0, 0, 0, 0, 0, 0],
     [0, 0, 0, 0, 0, 0, 0, 0],
     [0, 0, 0, 0, 0, 0, 0, 0],
     [0, 0, 0, 0, 0, 0, 0, 0],
     [0, 0, 0, 0, 0, 0, 0, 0],
     [0, 0, 0, 0, 0, 0, 0, 0],
     [0, 0, 0, 0, 0, 0, 0, 0],
     [0, 0, 0, 0, 0, 0, 0, 0],
     [0, 0, 0, 0, 0, 0, 0, 0],
     [0, 0, 0, 0, 0, 0, 0, 0],
     [0, 0, 0, 0, 0, 0, 0, 0],
     [0, 0, 0, 0, 0, 0, 0, 0],
     [0, 0, 0, 0, 0, 0, 0, 0],
     [0, 0, 0, 0, 0, 0, 0, 0],
     [0, 0, 0, 0, 0, 0, 0, 0],
     [0, 0, 0, 0, 0, 0, 0, 0],
     [0, 0, 0, 0, 0, 0, 0, 0],
     [0, 0, 0, 0, 0, 0, 0, 0],
     [0, 0, 0, 0, 0, 0, 0, 0],
     [0, 0, 0, 0, 0, 0, 0, 0],
     [0, 0, 0, 0, 0, 0, 0, 0],
     [0, 0, 0, 0, 0, 0, 0, 0]]"

definition sup_cond_spaces_19 :: "int list list" where
  "sup_cond_spaces_19 =
    [[0, 0, 0, 0, 0, 0, 0, 0],
     [0, 0, 0, 0, 0, 0, 0, 0],
     [0, 0, 0, 0, 0, 0, 0, 0],
     [0, 0, 0, 0, 0, 0, 0, 0],
     [0, 0, 0, 0, 0, 0, 0, 0],
     [0, 0, 0, 0, 0, 0, 0, 0],
     [0, 0, 0, 0, 0, 0, 0, 0],
     [0, 0, 0, 0, 0, 0, 0, 0],
     [0, 0, 0, 0, 0, 0, 0, 0],
     [0, 0, 0, 0, 0, 0, 0, 0],
     [0, 0, 0, 0, 0, 0, 0, 0],
     [0, 0, 0, 0, 0, 0, 0, 0],
     [0, 0, 0, 0, 0, 0, 0, 0],
     [0, 0, 0, 0, 0, 0, 0, 0],
     [0, 0, 0, 0, 0, 0, 0, 0],
     [0, 0, 0, 0, 0, 0, 0, 0],
     [0, 0, 0, 0, 0, 0, 0, 0],
     [0, 0, 0, 0, 0, 0, 0, 0],
     [0, 0, 0, 0, 0, 0, 0, 0],
     [0, 0, 0, 0, 0, 0, 0, 0],
     [0, 0, 0, 0, 0, 0, 0, 0],
     [0, 0, 0, 0, 0, 0, 0, 0],
     [0, 0, 0, 0, 0, 0, 0, 0],
     [0, 0, 0, 0, 0, 0, 0, 0],
     [0, 0, 0, 0, 0, 0, 0, 0],
     [0, 0, 0, 0, 0, 0, 0, 0],
     [0, 0, 0, 0, 0, 0, 0, 0],
     [0, 0, 0, 0, 0, 0, 0, 0],
     [0, 0, 0, 0, 0, 0, 0, 0],
     [0, 0, 0, 0, 0, 0, 0, 0],
     [0, 0, 0, 0, 0, 0, 0, 0],
     [0, 0, 0, 0, 0, 0, 0, 0],
     [0, 0, 0, 0, 0, 0, 0, 0],
     [0, 0, 0, 0, 0, 0, 0, 0],
     [0, 0, 0, 0, 0, 0, 0, 0],
     [0, 0, 0, 0, 0, 0, 0, 0],
     [0, 0, 0, 0, 0, 0, 0, 0],
     [0, 0, 0, 0, 0, 0, 0, 0],
     [0, 0, 0, 0, 0, 0, 0, 0],
     [0, 0, 0, 0, 0, 0, 0, 0],
     [0, 0, 0, 0, 0, 0, 0, 0],
     [0, 0, 0, 0, 0, 0, 0, 0],
     [0, 0, 0, 0, 0, 0, 0, 0],
     [0, 0, 0, 0, 0, 0, 0, 0],
     [0, 0, 0, 0, 0, 0, 0, 0],
     [0, 0, 0, 0, 0, 0, 0, 0],
     [0, 0, 0, 0, 0, 0, 0, 0],
     [0, 0, 0, 0, 0, 0, 0, 0],
     [0, 0, 0, 0, 0, 0, 0, 0],
     [0, 0, 0, 0, 0, 0, 0, 0],
     [0, 0, 0, 0, 0, 0, 0, 0],
     [0, 0, 0, 0, 0, 0, 0, 0],
     [0, 0, 0, 0, 0, 0, 0, 0],
     [0, 0, 0, 0, 0, 0, 0, 0],
     [0, 0, 0, 0, 0, 0, 0, 0],
     [0, 0, 0, 0, 0, 0, 0, 0],
     [0, 0, 0, 0, 0, 0, 0, 0],
     [0, 0, 0, 0, 0, 0, 0, 0],
     [0, 0, 0, 0, 0, 0, 0, 0],
     [0, 0, 0, 0, 0, 0, 0, 0],
     [0, 0, 0, 0, 0, 0, 0, 0],
     [0, 0, 0, 0, 0, 0, 0, 0],
     [0, 0, 0, 0, 0, 0, 0, 0],
     [0, 0, 0, 0, 0, 0, 0, 0],
     [0, 0, 0, 0, 0, 0, 0, 0],
     [0, 0, 0, 0, 0, 0, 0, 0],
     [0, 0, 0, 0, 0, 0, 0, 0],
     [0, 0, 0, 0, 0, 0, 0, 0],
     [0, 0, 0, 0, 0, 0, 0, 0],
     [0, 0, 0, 0, 0, 0, 0, 0],
     [0, 0, 0, 0, 0, 0, 0, 0],
     [0, 0, 0, 0, 0, 0, 0, 0],
     [0, 0, 0, 0, 0, 0, 0, 0],
     [0, 0, 0, 0, 0, 0, 0, 0],
     [0, 0, 0, 0, 0, 0, 0, 0],
     [0, 0, 0, 0, 0, 0, 0, 0],
     [0, 0, 0, 0, 0, 0, 0, 0],
     [0, 0, 0, 0, 0, 0, 0, 0],
     [0, 0, 0, 0, 0, 0, 0, 0],
     [0, 0, 0, 0, 0, 0, 0, 0],
     [0, 0, 0, 0, 0, 0, 0, 0],
     [0, 0, 0, 0, 0, 0, 0, 0],
     [0, 0, 0, 0, 0, 0, 0, 0],
     [0, 0, 0, 0, 0, 0, 0, 0],
     [0, 0, 0, 0, 0, 0, 0, 0],
     [0, 0, 0, 0, 0, 0, 0, 0],
     [0, 0, 0, 0, 0, 0, 0, 0],
     [0, 0, 0, 0, 0, 0, 0, 0],
     [0, 0, 0, 0, 0, 0, 0, 0],
     [0, 0, 0, 0, 0, 0, 0, 0],
     [0, 0, 0, 0, 0, 0, 0, 0],
     [0, 0, 0, 0, 0, 0, 0, 0],
     [0, 0, 0, 0, 0, 0, 0, 0],
     [0, 0, 0, 0, 0, 0, 0, 0],
     [0, 0, 0, 0, 0, 0, 0, 0],
     [0, 0, 0, 0, 0, 0, 0, 0],
     [0, 0, 0, 0, 0, 0, 0, 0],
     [0, 0, 0, 0, 0, 0, 0, 0],
     [0, 0, 0, 0, 0, 0, 0, 0],
     [0, 0, 0, 0, 0, 0, 0, 0],
     [0, 0, 0, 0, 0, 0, 0, 0],
     [0, 0, 0, 0, 0, 0, 0, 0],
     [0, 0, 0, 0, 0, 0, 0, 0],
     [0, 0, 0, 0, 0, 0, 0, 0],
     [0, 0, 0, 0, 0, 0, 0, 0],
     [0, 0, 0, 0, 0, 0, 0, 0],
     [0, 0, 0, 0, 0, 0, 0, 0],
     [0, 0, 0, 0, 0, 0, 0, 0],
     [0, 0, 0, 0, 0, 0, 0, 0],
     [0, 0, 0, 0, 0, 0, 0, 0],
     [0, 0, 0, 0, 0, 0, 0, 0],
     [0, 0, 0, 0, 0, 0, 0, 0],
     [0, 0, 0, 0, 0, 0, 0, 0],
     [0, 0, 0, 0, 0, 0, 0, 0],
     [0, 0, 0, 0, 0, 0, 0, 0],
     [0, 0, 0, 0, 0, 0, 0, 0],
     [0, 0, 0, 0, 0, 0, 0, 0],
     [0, 0, 0, 0, 0, 0, 0, 0],
     [0, 0, 0, 0, 0, 0, 0, 0],
     [0, 0, 0, 0, 0, 0, 0, 0],
     [0, 0, 0, 0, 0, 0, 0, 0],
     [0, 0, 0, 0, 0, 0, 0, 0],
     [0, 0, 0, 0, 0, 0, 0, 0],
     [0, 0, 0, 0, 0, 0, 0, 0],
     [0, 0, 0, 0, 0, 0, 0, 0],
     [0, 0, 0, 0, 0, 0, 0, 0],
     [0, 0, 0, 0, 0, 0, 0, 0],
     [0, 0, 0, 0, 0, 0, 0, 0],
     [0, 0, 0, 0, 0, 0, 0, 0],
     [0, 0, 0, 0, 0, 0, 0, 0],
     [0, 0, 0, 0, 0, 0, 0, 0],
     [0, 0, 0, 0, 0, 0, 0, 0],
     [0, 0, 0, 0, 0, 0, 0, 0],
     [0, 0, 0, 0, 0, 0, 0, 0],
     [0, 0, 0, 0, 0, 0, 0, 0],
     [0, 0, 0, 0, 0, 0, 0, 0],
     [0, 0, 0, 0, 0, 0, 0, 0],
     [0, 0, 0, 0, 0, 0, 0, 0],
     [0, 0, 0, 0, 0, 0, 0, 0],
     [0, 0, 0, 0, 0, 0, 0, 0],
     [0, 0, 0, 0, 0, 0, 0, 0],
     [0, 0, 0, 0, 0, 0, 0, 0],
     [0, 0, 0, 0, 0, 0, 0, 0],
     [0, 0, 0, 0, 0, 0, 0, 0],
     [0, 0, 0, 0, 0, 0, 0, 0],
     [0, 0, 0, 0, 0, 0, 0, 0],
     [0, 0, 0, 0, 0, 0, 0, 0],
     [0, 0, 0, 0, 0, 0, 0, 0],
     [0, 0, 0, 0, 0, 0, 0, 0],
     [0, 0, 0, 0, 0, 0, 0, 0]]"

definition sup_cond_spaces_20 :: "int list list" where
  "sup_cond_spaces_20 =
    [[0, 0, 0, 0, 0, 0, 0, 0],
     [0, 0, 0, 0, 0, 0, 0, 0],
     [0, 0, 0, 0, 0, 0, 0, 0],
     [0, 0, 0, 0, 0, 0, 0, 0],
     [0, 0, 0, 0, 0, 0, 0, 0],
     [0, 0, 0, 0, 0, 0, 0, 0],
     [0, 0, 0, 0, 0, 0, 0, 0],
     [0, 0, 0, 0, 0, 0, 0, 0],
     [0, 0, 0, 0, 0, 0, 0, 0],
     [0, 0, 0, 0, 0, 0, 0, 0],
     [0, 0, 0, 0, 0, 0, 0, 0],
     [0, 0, 0, 0, 0, 0, 0, 0],
     [0, 0, 0, 0, 0, 0, 0, 0],
     [0, 0, 0, 0, 0, 0, 0, 0],
     [0, 0, 0, 0, 0, 0, 0, 0],
     [0, 0, 0, 0, 0, 0, 0, 0],
     [0, 0, 0, 0, 0, 0, 0, 0],
     [0, 0, 0, 0, 0, 0, 0, 0],
     [0, 0, 0, 0, 0, 0, 0, 0],
     [0, 0, 0, 0, 0, 0, 0, 0],
     [0, 0, 0, 0, 0, 0, 0, 0],
     [0, 0, 0, 0, 0, 0, 0, 0],
     [0, 0, 0, 0, 0, 0, 0, 0],
     [0, 0, 0, 0, 0, 0, 0, 0],
     [0, 0, 0, 0, 0, 0, 0, 0],
     [0, 0, 0, 0, 0, 0, 0, 0],
     [0, 0, 0, 0, 0, 0, 0, 0],
     [0, 0, 0, 0, 0, 0, 0, 0],
     [0, 0, 0, 0, 0, 0, 0, 0],
     [0, 0, 0, 0, 0, 0, 0, 0],
     [0, 0, 0, 0, 0, 0, 0, 0],
     [0, 0, 0, 0, 0, 0, 0, 0],
     [0, 0, 0, 0, 0, 0, 0, 0],
     [0, 0, 0, 0, 0, 0, 0, 0],
     [0, 0, 0, 0, 0, 0, 0, 0],
     [0, 0, 0, 0, 0, 0, 0, 0],
     [0, 0, 0, 0, 0, 0, 0, 0],
     [0, 0, 0, 0, 0, 0, 0, 0],
     [0, 0, 0, 0, 0, 0, 0, 0],
     [0, 0, 0, 0, 0, 0, 0, 0],
     [0, 0, 0, 0, 0, 0, 0, 0],
     [0, 0, 0, 0, 0, 0, 0, 0],
     [0, 0, 0, 0, 0, 0, 0, 0],
     [0, 0, 0, 0, 0, 0, 0, 0],
     [0, 0, 0, 0, 0, 0, 0, 0],
     [0, 0, 0, 0, 0, 0, 0, 0],
     [0, 0, 0, 0, 0, 0, 0, 0],
     [0, 0, 0, 0, 0, 0, 0, 0],
     [0, 0, 0, 0, 0, 0, 0, 0],
     [0, 0, 0, 0, 0, 0, 0, 0],
     [0, 0, 0, 0, 0, 0, 0, 0],
     [0, 0, 0, 0, 0, 0, 0, 0],
     [0, 0, 0, 0, 0, 0, 0, 0],
     [0, 0, 0, 0, 0, 0, 0, 0],
     [0, 0, 0, 0, 0, 0, 0, 0],
     [0, 0, 0, 0, 0, 0, 0, 0],
     [0, 0, 0, 0, 0, 0, 0, 0],
     [0, 0, 0, 0, 0, 0, 0, 0],
     [0, 0, 0, 0, 0, 0, 0, 0],
     [0, 0, 0, 0, 0, 0, 0, 0],
     [0, 0, 0, 0, 0, 0, 0, 0],
     [0, 0, 0, 0, 0, 0, 0, 0],
     [0, 0, 0, 0, 0, 0, 0, 0],
     [0, 0, 0, 0, 0, 0, 0, 0],
     [0, 0, 0, 0, 0, 0, 0, 0],
     [0, 0, 0, 0, 0, 0, 0, 0],
     [0, 0, 0, 0, 0, 0, 0, 0],
     [0, 0, 0, 0, 0, 0, 0, 0],
     [0, 0, 0, 0, 0, 0, 0, 0],
     [0, 0, 0, 0, 0, 0, 0, 0],
     [0, 0, 0, 0, 0, 0, 0, 0],
     [0, 0, 0, 0, 0, 0, 0, 0],
     [0, 0, 0, 0, 0, 0, 0, 0],
     [0, 0, 0, 0, 0, 0, 0, 0],
     [0, 0, 0, 0, 0, 0, 0, 0],
     [0, 0, 0, 0, 0, 0, 0, 0],
     [0, 0, 0, 0, 0, 0, 0, 0],
     [0, 0, 0, 0, 0, 0, 0, 0],
     [0, 0, 0, 0, 0, 0, 0, 0],
     [0, 0, 0, 0, 0, 0, 0, 0],
     [0, 0, 0, 0, 0, 0, 0, 0],
     [0, 0, 0, 0, 0, 0, 0, 0],
     [0, 0, 0, 0, 0, 0, 0, 0],
     [0, 0, 0, 0, 0, 0, 0, 0],
     [0, 0, 0, 0, 0, 0, 0, 0],
     [0, 0, 0, 0, 0, 0, 0, 0],
     [0, 0, 0, 0, 0, 0, 0, 0],
     [0, 0, 0, 0, 0, 0, 0, 0],
     [0, 0, 0, 0, 0, 0, 0, 0],
     [0, 0, 0, 0, 0, 0, 0, 0],
     [0, 0, 0, 0, 0, 0, 0, 0],
     [0, 0, 0, 0, 0, 0, 0, 0],
     [0, 0, 0, 0, 0, 0, 0, 0],
     [0, 0, 0, 0, 0, 0, 0, 0],
     [0, 0, 0, 0, 0, 0, 0, 0],
     [0, 0, 0, 0, 0, 0, 0, 0],
     [0, 0, 0, 0, 0, 0, 0, 0],
     [0, 0, 0, 0, 0, 0, 0, 0],
     [0, 0, 0, 0, 0, 0, 0, 0],
     [0, 0, 0, 0, 0, 0, 0, 0],
     [0, 0, 0, 0, 0, 0, 0, 0],
     [0, 0, 0, 0, 0, 0, 0, 0],
     [0, 0, 0, 0, 0, 0, 0, 0],
     [0, 0, 0, 0, 0, 0, 0, 0],
     [0, 0, 0, 0, 0, 0, 0, 0],
     [0, 0, 0, 0, 0, 0, 0, 0],
     [0, 0, 0, 0, 0, 0, 0, 0],
     [0, 0, 0, 0, 0, 0, 0, 0],
     [0, 0, 0, 0, 0, 0, 0, 0],
     [0, 0, 0, 0, 0, 0, 0, 0],
     [0, 0, 0, 0, 0, 0, 0, 0],
     [0, 0, 0, 0, 0, 0, 0, 0],
     [0, 0, 0, 0, 0, 0, 0, 0],
     [0, 0, 0, 0, 0, 0, 0, 0],
     [0, 0, 0, 0, 0, 0, 0, 0],
     [0, 0, 0, 0, 0, 0, 0, 0],
     [0, 0, 0, 0, 0, 0, 0, 0],
     [0, 0, 0, 0, 0, 0, 0, 0],
     [0, 0, 0, 0, 0, 0, 0, 0],
     [0, 0, 0, 0, 0, 0, 0, 0],
     [0, 0, 0, 0, 0, 0, 0, 0],
     [0, 0, 0, 0, 0, 0, 0, 0],
     [0, 0, 0, 0, 0, 0, 0, 0],
     [0, 0, 0, 0, 0, 0, 0, 0],
     [0, 0, 0, 0, 0, 0, 0, 0],
     [0, 0, 0, 0, 0, 0, 0, 0],
     [0, 0, 0, 0, 0, 0, 0, 0],
     [0, 0, 0, 0, 0, 0, 0, 0],
     [0, 0, 0, 0, 0, 0, 0, 0],
     [0, 0, 0, 0, 0, 0, 0, 0],
     [0, 0, 0, 0, 0, 0, 0, 0],
     [0, 0, 0, 0, 0, 0, 0, 0],
     [0, 0, 0, 0, 0, 0, 0, 0],
     [0, 0, 0, 0, 0, 0, 0, 0],
     [0, 0, 0, 0, 0, 0, 0, 0],
     [0, 0, 0, 0, 0, 0, 0, 0],
     [0, 0, 0, 0, 0, 0, 0, 0],
     [0, 0, 0, 0, 0, 0, 0, 0],
     [0, 0, 0, 0, 0, 0, 0, 0],
     [0, 0, 0, 0, 0, 0, 0, 0],
     [0, 0, 0, 0, 0, 0, 0, 0],
     [0, 0, 0, 0, 0, 0, 0, 0],
     [0, 0, 0, 0, 0, 0, 0, 0],
     [0, 0, 0, 0, 0, 0, 0, 0],
     [0, 0, 0, 0, 0, 0, 0, 0],
     [0, 0, 0, 0, 0, 0, 0, 0],
     [0, 0, 0, 0, 0, 0, 0, 0],
     [0, 0, 0, 0, 0, 0, 0, 0],
     [0, 0, 0, 0, 0, 0, 0, 0],
     [0, 0, 0, 0, 0, 0, 0, 0]]"

definition sup_cond_spaces_21 :: "int list list" where
  "sup_cond_spaces_21 =
    [[0, 0, 0, 0, 0, 0, 0, 0],
     [0, 0, 0, 0, 0, 0, 0, 0],
     [0, 0, 0, 0, 0, 0, 0, 0],
     [0, 0, 0, 0, 0, 0, 0, 0],
     [0, 0, 0, 0, 0, 0, 0, 0],
     [0, 0, 0, 0, 0, 0, 0, 0],
     [0, 0, 0, 0, 0, 0, 0, 0],
     [0, 0, 0, 0, 0, 0, 0, 0],
     [0, 0, 0, 0, 0, 0, 0, 0],
     [0, 0, 0, 0, 0, 0, 0, 0],
     [0, 0, 0, 0, 0, 0, 0, 0],
     [0, 0, 0, 0, 0, 0, 0, 0],
     [0, 0, 0, 0, 0, 0, 0, 0],
     [0, 0, 0, 0, 0, 0, 0, 0],
     [0, 0, 0, 0, 0, 0, 0, 0],
     [0, 0, 0, 0, 0, 0, 0, 0],
     [0, 0, 0, 0, 0, 0, 0, 0],
     [0, 0, 0, 0, 0, 0, 0, 0],
     [0, 0, 0, 0, 0, 0, 0, 0],
     [0, 0, 0, 0, 0, 0, 0, 0],
     [0, 0, 0, 0, 0, 0, 0, 0],
     [0, 0, 0, 0, 0, 0, 0, 0],
     [0, 0, 0, 0, 0, 0, 0, 0],
     [0, 0, 0, 0, 0, 0, 0, 0],
     [0, 0, 0, 0, 0, 0, 0, 0],
     [0, 0, 0, 0, 0, 0, 0, 0],
     [0, 0, 0, 0, 0, 0, 0, 0],
     [0, 0, 0, 0, 0, 0, 0, 0],
     [0, 0, 0, 0, 0, 0, 0, 0],
     [0, 0, 0, 0, 0, 0, 0, 0],
     [0, 0, 0, 0, 0, 0, 0, 0],
     [0, 0, 0, 0, 0, 0, 0, 0],
     [0, 0, 0, 0, 0, 0, 0, 0],
     [0, 0, 0, 0, 0, 0, 0, 0],
     [0, 0, 0, 0, 0, 0, 0, 0],
     [0, 0, 0, 0, 0, 0, 0, 0],
     [0, 0, 0, 0, 0, 0, 0, 0],
     [0, 0, 0, 0, 0, 0, 0, 0],
     [0, 0, 0, 0, 0, 0, 0, 0],
     [0, 0, 0, 0, 0, 0, 0, 0],
     [0, 0, 0, 0, 0, 0, 0, 0],
     [0, 0, 0, 0, 0, 0, 0, 0],
     [0, 0, 0, 0, 0, 0, 0, 0],
     [0, 0, 0, 0, 0, 0, 0, 0],
     [0, 0, 0, 0, 0, 0, 0, 0],
     [0, 0, 0, 0, 0, 0, 0, 0],
     [0, 0, 0, 0, 0, 0, 0, 0],
     [0, 0, 0, 0, 0, 0, 0, 0],
     [0, 0, 0, 0, 0, 0, 0, 0],
     [0, 0, 0, 0, 0, 0, 0, 0],
     [0, 0, 0, 0, 0, 0, 0, 0],
     [0, 0, 0, 0, 0, 0, 0, 0],
     [0, 0, 0, 0, 0, 0, 0, 0],
     [0, 0, 0, 0, 0, 0, 0, 0],
     [0, 0, 0, 0, 0, 0, 0, 0],
     [0, 0, 0, 0, 0, 0, 0, 0],
     [0, 0, 0, 0, 0, 0, 0, 0],
     [0, 0, 0, 0, 0, 0, 0, 0],
     [0, 0, 0, 0, 0, 0, 0, 0],
     [0, 0, 0, 0, 0, 0, 0, 0],
     [0, 0, 0, 0, 0, 0, 0, 0],
     [0, 0, 0, 0, 0, 0, 0, 0],
     [0, 0, 0, 0, 0, 0, 0, 0],
     [0, 0, 0, 0, 0, 0, 0, 0],
     [0, 0, 0, 0, 0, 0, 0, 0],
     [0, 0, 0, 0, 0, 0, 0, 0],
     [0, 0, 0, 0, 0, 0, 0, 0],
     [0, 0, 0, 0, 0, 0, 0, 0],
     [0, 0, 0, 0, 0, 0, 0, 0],
     [0, 0, 0, 0, 0, 0, 0, 0],
     [0, 0, 0, 0, 0, 0, 0, 0],
     [0, 0, 0, 0, 0, 0, 0, 0],
     [0, 0, 0, 0, 0, 0, 0, 0],
     [0, 0, 0, 0, 0, 0, 0, 0],
     [0, 0, 0, 0, 0, 0, 0, 0],
     [0, 0, 0, 0, 0, 0, 0, 0],
     [0, 0, 0, 0, 0, 0, 0, 0],
     [0, 0, 0, 0, 0, 0, 0, 0],
     [0, 0, 0, 0, 0, 0, 0, 0],
     [0, 0, 0, 0, 0, 0, 0, 0],
     [0, 0, 0, 0, 0, 0, 0, 0],
     [0, 0, 0, 0, 0, 0, 0, 0],
     [0, 0, 0, 0, 0, 0, 0, 0],
     [0, 0, 0, 0, 0, 0, 0, 0],
     [0, 0, 0, 0, 0, 0, 0, 0],
     [0, 0, 0, 0, 0, 0, 0, 0],
     [0, 0, 0, 0, 0, 0, 0, 0],
     [0, 0, 0, 0, 0, 0, 0, 0],
     [0, 0, 0, 0, 0, 0, 0, 0],
     [0, 0, 0, 0, 0, 0, 0, 0],
     [0, 0, 0, 0, 0, 0, 0, 0],
     [0, 0, 0, 0, 0, 0, 0, 0],
     [0, 0, 0, 0, 0, 0, 0, 0],
     [0, 0, 0, 0, 0, 0, 0, 0],
     [0, 0, 0, 0, 0, 0, 0, 0],
     [0, 0, 0, 0, 0, 0, 0, 0],
     [0, 0, 0, 0, 0, 0, 0, 0],
     [0, 0, 0, 0, 0, 0, 0, 0],
     [0, 0, 0, 0, 0, 0, 0, 0],
     [0, 0, 0, 0, 0, 0, 0, 0],
     [0, 0, 0, 0, 0, 0, 0, 0],
     [0, 0, 0, 0, 0, 0, 0, 0],
     [0, 0, 0, 0, 0, 0, 0, 0],
     [0, 0, 0, 0, 0, 0, 0, 0],
     [0, 0, 0, 0, 0, 0, 0, 0],
     [0, 0, 0, 0, 0, 0, 0, 0],
     [0, 0, 0, 0, 0, 0, 0, 0],
     [0, 0, 0, 0, 0, 0, 0, 0],
     [0, 0, 0, 0, 0, 0, 0, 0],
     [0, 0, 0, 0, 0, 0, 0, 0],
     [0, 0, 0, 0, 0, 0, 0, 0],
     [0, 0, 0, 0, 0, 0, 0, 0],
     [0, 0, 0, 0, 0, 0, 0, 0],
     [0, 0, 0, 0, 0, 0, 0, 0],
     [0, 0, 0, 0, 0, 0, 0, 0],
     [0, 0, 0, 0, 0, 0, 0, 0],
     [0, 0, 0, 0, 0, 0, 0, 0],
     [0, 0, 0, 0, 0, 0, 0, 0],
     [0, 0, 0, 0, 0, 0, 0, 0],
     [0, 0, 0, 0, 0, 0, 0, 0],
     [0, 0, 0, 0, 0, 0, 0, 0],
     [0, 0, 0, 0, 0, 0, 0, 0],
     [0, 0, 0, 0, 0, 0, 0, 0],
     [0, 0, 0, 0, 0, 0, 0, 0],
     [0, 0, 0, 0, 0, 0, 0, 0],
     [0, 0, 0, 0, 0, 0, 0, 0],
     [0, 0, 0, 0, 0, 0, 0, 0],
     [0, 0, 0, 0, 0, 0, 0, 0],
     [0, 0, 0, 0, 0, 0, 0, 0],
     [0, 0, 0, 0, 0, 0, 0, 0],
     [0, 0, 0, 0, 0, 0, 0, 0],
     [0, 0, 0, 0, 0, 0, 0, 0],
     [0, 0, 0, 0, 0, 0, 0, 0],
     [0, 0, 0, 0, 0, 0, 0, 0],
     [0, 0, 0, 0, 0, 0, 0, 0],
     [0, 0, 0, 0, 0, 0, 0, 0],
     [0, 0, 0, 0, 0, 0, 0, 0],
     [0, 0, 0, 0, 0, 0, 0, 0],
     [0, 0, 0, 0, 0, 0, 0, 0],
     [0, 0, 0, 0, 0, 0, 0, 0],
     [0, 0, 0, 0, 0, 0, 0, 0],
     [0, 0, 0, 0, 0, 0, 0, 0],
     [0, 0, 0, 0, 0, 0, 0, 0],
     [0, 0, 0, 0, 0, 0, 0, 0],
     [0, 0, 0, 0, 0, 0, 0, 0],
     [0, 0, 0, 0, 0, 0, 0, 0],
     [0, 0, 0, 0, 0, 0, 0, 0],
     [0, 0, 0, 0, 0, 0, 0, 0],
     [0, 0, 0, 0, 0, 0, 0, 0],
     [0, 0, 0, 0, 0, 0, 0, 0]]"

definition sup_cond_spaces_22 :: "int list list" where
  "sup_cond_spaces_22 =
    [[0, 0, 0, 0, 0, 0, 0, 0],
     [0, 0, 0, 0, 0, 0, 0, 0],
     [0, 0, 0, 0, 0, 0, 0, 0],
     [0, 0, 0, 0, 0, 0, 0, 0],
     [0, 0, 0, 0, 0, 0, 0, 0],
     [0, 0, 0, 0, 0, 0, 0, 0],
     [0, 0, 0, 0, 0, 0, 0, 0],
     [0, 0, 0, 0, 0, 0, 0, 0],
     [0, 0, 0, 0, 0, 0, 0, 0],
     [0, 0, 0, 0, 0, 0, 0, 0],
     [0, 0, 0, 0, 0, 0, 0, 0],
     [0, 0, 0, 0, 0, 0, 0, 0],
     [0, 0, 0, 0, 0, 0, 0, 0],
     [0, 0, 0, 0, 0, 0, 0, 0],
     [0, 0, 0, 0, 0, 0, 0, 0],
     [0, 0, 0, 0, 0, 0, 0, 0],
     [0, 0, 0, 0, 0, 0, 0, 0],
     [0, 0, 0, 0, 0, 0, 0, 0],
     [0, 0, 0, 0, 0, 0, 0, 0],
     [0, 0, 0, 0, 0, 0, 0, 0],
     [0, 0, 0, 0, 0, 0, 0, 0],
     [0, 0, 0, 0, 0, 0, 0, 0],
     [0, 0, 0, 0, 0, 0, 0, 0],
     [0, 0, 0, 0, 0, 0, 0, 0],
     [0, 0, 0, 0, 0, 0, 0, 0],
     [0, 0, 0, 0, 0, 0, 0, 0],
     [0, 0, 0, 0, 0, 0, 0, 0],
     [0, 0, 0, 0, 0, 0, 0, 0],
     [0, 0, 0, 0, 0, 0, 0, 0],
     [0, 0, 0, 0, 0, 0, 0, 0],
     [0, 0, 0, 0, 0, 0, 0, 0],
     [0, 0, 0, 0, 0, 0, 0, 0],
     [0, 0, 0, 0, 0, 0, 0, 0],
     [0, 0, 0, 0, 0, 0, 0, 0],
     [0, 0, 0, 0, 0, 0, 0, 0],
     [0, 0, 0, 0, 0, 0, 0, 0],
     [0, 0, 0, 0, 0, 0, 0, 0],
     [0, 0, 0, 0, 0, 0, 0, 0],
     [0, 0, 0, 0, 0, 0, 0, 0],
     [0, 0, 0, 0, 0, 0, 0, 0],
     [0, 0, 0, 0, 0, 0, 0, 0],
     [0, 0, 0, 0, 0, 0, 0, 0],
     [0, 0, 0, 0, 0, 0, 0, 0],
     [0, 0, 0, 0, 0, 0, 0, 0],
     [0, 0, 0, 0, 0, 0, 0, 0],
     [0, 0, 0, 0, 0, 0, 0, 0],
     [0, 0, 0, 0, 0, 0, 0, 0],
     [0, 0, 0, 0, 0, 0, 0, 0],
     [0, 0, 0, 0, 0, 0, 0, 0],
     [0, 0, 0, 0, 0, 0, 0, 0],
     [0, 0, 0, 0, 0, 0, 0, 0],
     [0, 0, 0, 0, 0, 0, 0, 0],
     [0, 0, 0, 0, 0, 0, 0, 0],
     [0, 0, 0, 0, 0, 0, 0, 0],
     [0, 0, 0, 0, 0, 0, 0, 0],
     [0, 0, 0, 0, 0, 0, 0, 0],
     [0, 0, 0, 0, 0, 0, 0, 0],
     [0, 0, 0, 0, 0, 0, 0, 0],
     [0, 0, 0, 0, 0, 0, 0, 0],
     [0, 0, 0, 0, 0, 0, 0, 0],
     [0, 0, 0, 0, 0, 0, 0, 0],
     [0, 0, 0, 0, 0, 0, 0, 0],
     [0, 0, 0, 0, 0, 0, 0, 0],
     [0, 0, 0, 0, 0, 0, 0, 0],
     [0, 0, 0, 0, 0, 0, 0, 0],
     [0, 0, 0, 0, 0, 0, 0, 0],
     [0, 0, 0, 0, 0, 0, 0, 0],
     [0, 0, 0, 0, 0, 0, 0, 0],
     [0, 0, 0, 0, 0, 0, 0, 0],
     [0, 0, 0, 0, 0, 0, 0, 0],
     [0, 0, 0, 0, 0, 0, 0, 0],
     [0, 0, 0, 0, 0, 0, 0, 0],
     [0, 0, 0, 0, 0, 0, 0, 0],
     [0, 0, 0, 0, 0, 0, 0, 0],
     [0, 0, 0, 0, 0, 0, 0, 0],
     [0, 0, 0, 0, 0, 0, 0, 0],
     [0, 0, 0, 0, 0, 0, 0, 0],
     [0, 0, 0, 0, 0, 0, 0, 0],
     [0, 0, 0, 0, 0, 0, 0, 0],
     [0, 0, 0, 0, 0, 0, 0, 0],
     [0, 0, 0, 0, 0, 0, 0, 0],
     [0, 0, 0, 0, 0, 0, 0, 0],
     [0, 0, 0, 0, 0, 0, 0, 0],
     [0, 0, 0, 0, 0, 0, 0, 0],
     [0, 0, 0, 0, 0, 0, 0, 0],
     [0, 0, 0, 0, 0, 0, 0, 0],
     [0, 0, 0, 0, 0, 0, 0, 0],
     [0, 0, 0, 0, 0, 0, 0, 0],
     [0, 0, 0, 0, 0, 0, 0, 0],
     [0, 0, 0, 0, 0, 0, 0, 0],
     [0, 0, 0, 0, 0, 0, 0, 0],
     [0, 0, 0, 0, 0, 0, 0, 0],
     [0, 0, 0, 0, 0, 0, 0, 0],
     [0, 0, 0, 0, 0, 0, 0, 0],
     [0, 0, 0, 0, 0, 0, 0, 0],
     [0, 0, 0, 0, 0, 0, 0, 0],
     [0, 0, 0, 0, 0, 0, 0, 0],
     [0, 0, 0, 0, 0, 0, 0, 0],
     [0, 0, 0, 0, 0, 0, 0, 0],
     [0, 0, 0, 0, 0, 0, 0, 0],
     [0, 0, 0, 0, 0, 0, 0, 0],
     [0, 0, 0, 0, 0, 0, 0, 0],
     [0, 0, 0, 0, 0, 0, 0, 0],
     [0, 0, 0, 0, 0, 0, 0, 0],
     [0, 0, 0, 0, 0, 0, 0, 0],
     [0, 0, 0, 0, 0, 0, 0, 0],
     [0, 0, 0, 0, 0, 0, 0, 0],
     [0, 0, 0, 0, 0, 0, 0, 0],
     [0, 0, 0, 0, 0, 0, 0, 0],
     [0, 0, 0, 0, 0, 0, 0, 0],
     [0, 0, 0, 0, 0, 0, 0, 0],
     [0, 0, 0, 0, 0, 0, 0, 0],
     [0, 0, 0, 0, 0, 0, 0, 0],
     [0, 0, 0, 0, 0, 0, 0, 0],
     [0, 0, 0, 0, 0, 0, 0, 0],
     [0, 0, 0, 0, 0, 0, 0, 0],
     [0, 0, 0, 0, 0, 0, 0, 0],
     [0, 0, 0, 0, 0, 0, 0, 0],
     [0, 0, 0, 0, 0, 0, 0, 0],
     [0, 0, 0, 0, 0, 0, 0, 0],
     [0, 0, 0, 0, 0, 0, 0, 0],
     [0, 0, 0, 0, 0, 0, 0, 0],
     [0, 0, 0, 0, 0, 0, 0, 0],
     [0, 0, 0, 0, 0, 0, 0, 0],
     [0, 0, 0, 0, 0, 0, 0, 0],
     [0, 0, 0, 0, 0, 0, 0, 0],
     [0, 0, 0, 0, 0, 0, 0, 0],
     [0, 0, 0, 0, 0, 0, 0, 0],
     [0, 0, 0, 0, 0, 0, 0, 0],
     [0, 0, 0, 0, 0, 0, 0, 0],
     [0, 0, 0, 0, 0, 0, 0, 0],
     [0, 0, 0, 0, 0, 0, 0, 0],
     [0, 0, 0, 0, 0, 0, 0, 0],
     [0, 0, 0, 0, 0, 0, 0, 0],
     [0, 0, 0, 0, 0, 0, 0, 0],
     [0, 0, 0, 0, 0, 0, 0, 0],
     [0, 0, 0, 0, 0, 0, 0, 0],
     [0, 0, 0, 0, 0, 0, 0, 0],
     [0, 0, 0, 0, 0, 0, 0, 0],
     [0, 0, 0, 0, 0, 0, 0, 0],
     [0, 0, 0, 0, 0, 0, 0, 0],
     [0, 0, 0, 0, 0, 0, 0, 0],
     [0, 0, 0, 0, 0, 0, 0, 0],
     [0, 0, 1, 1, 1, 1, 1, 1],
     [1, 1, 1, 1, 1, 1, 1, 1],
     [1, 1, 1, 1, 1, 1, 1, 1],
     [1, 1, 1, 1, 1, 1, 1, 1],
     [1, 1, 1, 1, 1, 1, 1, 1],
     [1, 1, 1, 1, 1, 1, 1, 1],
     [1, 1, 1, 1, 1, 1, 1, 1]]"

definition sup_cond_spaces_23 :: "int list list" where
  "sup_cond_spaces_23 =
    [[1, 1, 1, 1, 1, 1, 1, 1],
     [1, 1, 1, 1, 1, 1, 1, 1],
     [1, 1, 1, 1, 1, 1, 1, 1],
     [1, 1, 1, 1, 1, 1, 1, 1],
     [1, 1, 1, 1, 1, 1, 1, 1],
     [1, 1, 1, 1, 1, 1, 1, 1],
     [1, 1, 1, 1, 1, 1, 1, 1],
     [1, 1, 1, 1, 1, 1, 1, 1],
     [1, 1, 1, 1, 1, 1, 1, 1],
     [1, 1, 1, 1, 1, 1, 1, 1],
     [1, 1, 1, 1, 1, 1, 1, 1],
     [1, 1, 1, 1, 1, 1, 1, 1],
     [1, 1, 1, 1, 1, 1, 1, 1],
     [1, 1, 1, 1, 1, 1, 1, 1],
     [1, 1, 1, 1, 1, 1, 1, 1],
     [1, 1, 1, 1, 1, 1, 1, 1],
     [1, 1, 1, 1, 1, 1, 1, 1],
     [1, 1, 1, 1, 1, 1, 1, 1],
     [1, 1, 1, 1, 1, 1, 1, 1],
     [1, 1, 1, 1, 1, 1, 1, 1],
     [1, 1, 1, 1, 1, 1, 1, 1],
     [1, 1, 1, 1, 1, 1, 1, 1],
     [1, 1, 1, 1, 1, 1, 1, 1],
     [1, 1, 1, 1, 1, 1, 1, 1],
     [1, 1, 1, 1, 1, 1, 1, 1],
     [1, 1, 1, 1, 1, 1, 1, 1],
     [1, 1, 1, 1, 1, 1, 1, 1],
     [1, 1, 1, 1, 1, 1, 1, 1],
     [1, 1, 1, 1, 1, 1, 1, 1],
     [1, 1, 1, 1, 1, 1, 1, 1],
     [1, 1, 1, 1, 1, 1, 1, 1],
     [1, 1, 1, 1, 1, 1, 1, 1],
     [1, 1, 1, 1, 1, 1, 1, 1],
     [1, 1, 1, 1, 1, 1, 1, 1],
     [1, 1, 1, 1, 1, 1, 1, 1],
     [1, 1, 1, 1, 1, 1, 1, 1],
     [1, 1, 1, 1, 1, 1, 1, 1],
     [1, 1, 1, 1, 1, 1, 1, 1],
     [1, 1, 1, 1, 1, 1, 1, 1],
     [1, 1, 1, 1, 1, 1, 1, 1],
     [1, 1, 1, 1, 1, 1, 1, 1],
     [1, 1, 1, 1, 1, 1, 1, 1],
     [1, 1, 1, 1, 1, 1, 1, 1],
     [1, 1, 1, 1, 1, 1, 1, 1],
     [1, 1, 1, 1, 1, 1, 1, 1],
     [1, 1, 1, 1, 1, 1, 1, 1],
     [1, 1, 1, 1, 1, 1, 1, 1],
     [1, 1, 1, 1, 1, 1, 1, 1],
     [1, 1, 1, 1, 1, 1, 1, 1],
     [1, 1, 1, 1, 1, 1, 1, 1],
     [1, 1, 1, 1, 1, 1, 1, 1],
     [1, 1, 1, 1, 1, 1, 1, 1],
     [1, 1, 1, 1, 1, 1, 1, 1],
     [1, 1, 1, 1, 1, 1, 1, 1],
     [1, 1, 1, 1, 1, 1, 1, 1],
     [1, 1, 1, 1, 1, 1, 1, 1],
     [1, 1, 1, 1, 1, 1, 1, 1],
     [1, 1, 1, 1, 1, 1, 1, 1],
     [1, 1, 1, 1, 1, 1, 1, 1],
     [1, 1, 1, 1, 1, 1, 1, 1],
     [1, 1, 1, 1, 1, 1, 1, 1],
     [1, 1, 1, 1, 1, 1, 1, 1],
     [1, 1, 1, 1, 1, 1, 1, 1],
     [1, 1, 1, 1, 1, 1, 1, 1],
     [1, 1, 1, 1, 1, 1, 1, 1],
     [1, 1, 1, 1, 1, 1, 1, 1],
     [1, 1, 1, 1, 1, 1, 1, 1],
     [1, 1, 1, 1, 1, 1, 1, 1],
     [1, 1, 1, 1, 1, 1, 1, 1],
     [1, 1, 1, 1, 1, 1, 1, 1],
     [1, 1, 1, 1, 1, 1, 1, 1],
     [1, 1, 1, 1, 1, 1, 1, 1],
     [1, 1, 1, 1, 1, 1, 1, 1],
     [1, 1, 1, 1, 1, 1, 1, 1],
     [1, 1, 1, 1, 1, 1, 1, 1],
     [1, 1, 1, 1, 1, 1, 1, 1],
     [1, 1, 1, 1, 1, 1, 1, 1],
     [1, 1, 1, 1, 1, 1, 1, 1],
     [1, 1, 1, 1, 1, 1, 1, 1],
     [1, 1, 1, 1, 1, 1, 1, 1],
     [1, 1, 1, 1, 1, 1, 1, 1],
     [1, 1, 1, 1, 1, 1, 1, 1],
     [1, 1, 1, 1, 1, 1, 1, 1],
     [1, 1, 1, 1, 1, 1, 1, 1],
     [1, 1, 1, 1, 1, 1, 1, 1],
     [1, 1, 1, 1, 1, 1, 1, 1],
     [1, 1, 1, 1, 1, 1, 1, 1],
     [1, 1, 1, 1, 1, 1, 1, 1],
     [1, 1, 1, 1, 1, 1, 1, 1],
     [1, 1, 1, 1, 1, 1, 1, 1],
     [1, 1, 1, 1, 1, 1, 1, 1],
     [1, 1, 1, 1, 1, 1, 1, 1],
     [1, 1, 1, 1, 1, 1, 1, 1],
     [1, 1, 1, 1, 1, 1, 1, 1],
     [1, 1, 1, 1, 1, 1, 1, 1],
     [1, 1, 1, 1, 1, 1, 1, 1],
     [1, 1, 1, 1, 1, 1, 1, 1],
     [1, 1, 1, 1, 1, 1, 1, 1],
     [1, 1, 1, 1, 1, 1, 1, 1],
     [1, 1, 1, 1, 1, 1, 1, 1],
     [1, 1, 1, 1, 1, 1, 1, 1],
     [1, 1, 1, 1, 1, 1, 1, 1],
     [1, 1, 1, 1, 1, 1, 1, 1],
     [1, 1, 1, 1, 1, 1, 1, 1],
     [1, 1, 1, 1, 1, 1, 1, 1],
     [1, 1, 1, 1, 1, 1, 1, 1],
     [1, 1, 1, 1, 1, 1, 1, 1],
     [1, 1, 1, 1, 1, 1, 1, 1],
     [1, 1, 1, 1, 1, 1, 1, 1],
     [1, 1, 1, 1, 1, 1, 1, 1],
     [1, 1, 1, 1, 1, 1, 1, 1],
     [1, 1, 1, 1, 1, 1, 1, 1],
     [1, 1, 1, 1, 1, 1, 1, 1],
     [1, 1, 1, 1, 1, 1, 1, 1],
     [1, 1, 1, 1, 1, 1, 1, 1],
     [1, 1, 1, 1, 1, 1, 1, 1],
     [1, 1, 1, 1, 1, 1, 1, 1],
     [1, 1, 1, 1, 1, 1, 1, 1],
     [1, 1, 1, 1, 1, 1, 1, 1],
     [1, 1, 1, 1, 1, 1, 1, 1],
     [1, 1, 1, 1, 1, 1, 1, 1],
     [1, 1, 1, 1, 1, 1, 1, 1],
     [1, 1, 1, 1, 1, 1, 1, 1],
     [1, 1, 1, 1, 1, 1, 1, 1],
     [1, 1, 1, 1, 1, 1, 1, 1],
     [1, 1, 1, 1, 1, 1, 1, 1],
     [1, 1, 1, 1, 1, 1, 1, 1],
     [1, 1, 1, 1, 1, 1, 1, 1],
     [1, 1, 1, 1, 1, 1, 1, 1],
     [1, 1, 1, 1, 1, 1, 1, 1],
     [1, 1, 1, 1, 1, 1, 1, 1],
     [1, 1, 1, 1, 1, 1, 1, 1],
     [1, 1, 1, 1, 1, 1, 1, 1],
     [1, 1, 1, 1, 1, 1, 1, 1],
     [1, 1, 1, 1, 1, 1, 1, 1],
     [1, 1, 1, 1, 1, 1, 1, 1],
     [1, 1, 1, 1, 1, 1, 1, 1],
     [1, 1, 1, 1, 1, 1, 1, 1],
     [1, 1, 1, 1, 1, 1, 1, 1],
     [1, 1, 1, 1, 1, 1, 1, 1],
     [1, 1, 1, 1, 1, 1, 1, 1],
     [1, 1, 1, 1, 1, 1, 1, 1],
     [1, 1, 1, 1, 1, 1, 1, 1],
     [1, 1, 1, 1, 1, 1, 1, 1],
     [1, 1, 1, 1, 1, 1, 1, 1],
     [1, 1, 1, 1, 1, 1, 1, 1],
     [1, 1, 1, 1, 1, 1, 1, 1],
     [1, 1, 1, 1, 1, 1, 1, 1],
     [1, 1, 1, 1, 1, 1, 1, 1],
     [1, 1, 1, 1, 1, 1, 1, 1]]"

definition sup_cond_spaces_24 :: "int list list" where
  "sup_cond_spaces_24 =
    [[1, 1, 1, 1, 1, 1, 1, 1],
     [1, 1, 1, 1, 1, 1, 1, 1],
     [1, 1, 1, 1, 1, 1, 1, 1],
     [1, 1, 1, 1, 1, 1, 1, 1],
     [1, 1, 1, 1, 1, 1, 1, 1],
     [1, 1, 1, 1, 1, 1, 1, 1],
     [1, 1, 1, 1, 1, 1, 1, 1],
     [1, 1, 1, 1, 1, 1, 1, 1],
     [1, 1, 1, 1, 1, 1, 1, 1],
     [1, 1, 1, 1, 1, 1, 1, 1],
     [1, 1, 1, 1, 1, 1, 1, 1],
     [1, 1, 1, 1, 1, 1, 1, 1],
     [1, 1, 1, 1, 1, 1, 1, 1],
     [1, 1, 1, 1, 1, 1, 1, 1],
     [1, 1, 1, 1, 1, 1, 1, 1],
     [1, 1, 1, 1, 1, 1, 1, 1],
     [1, 1, 1, 1, 1, 1, 1, 1],
     [1, 1, 1, 1, 1, 1, 1, 1],
     [1, 1, 1, 1, 1, 1, 1, 1],
     [1, 1, 1, 1, 1, 1, 1, 1],
     [1, 1, 1, 1, 1, 1, 1, 1],
     [1, 1, 1, 1, 1, 1, 1, 1],
     [1, 1, 1, 1, 1, 1, 1, 1],
     [1, 1, 1, 1, 1, 1, 1, 1],
     [1, 1, 1, 1, 1, 1, 1, 1],
     [1, 1, 1, 1, 1, 1, 1, 1],
     [1, 1, 1, 1, 1, 1, 1, 1],
     [1, 1, 1, 1, 1, 1, 1, 1],
     [1, 1, 1, 1, 1, 1, 1, 1],
     [1, 1, 1, 1, 1, 1, 1, 1],
     [1, 1, 1, 1, 1, 1, 1, 1],
     [1, 1, 1, 1, 1, 1, 1, 1],
     [1, 1, 1, 1, 1, 1, 1, 1],
     [1, 1, 1, 1, 1, 1, 1, 1],
     [1, 1, 1, 1, 1, 1, 1, 1],
     [1, 1, 1, 1, 1, 1, 1, 1],
     [1, 1, 1, 1, 1, 1, 1, 1],
     [1, 1, 1, 1, 1, 1, 1, 1],
     [1, 1, 1, 1, 1, 1, 1, 1],
     [1, 1, 1, 1, 1, 1, 1, 1],
     [1, 1, 1, 1, 1, 1, 1, 1],
     [1, 1, 1, 1, 1, 1, 1, 1],
     [1, 1, 1, 1, 1, 1, 1, 1],
     [1, 1, 1, 1, 1, 1, 1, 1],
     [1, 1, 1, 1, 1, 1, 1, 1],
     [1, 1, 1, 1, 1, 1, 1, 1],
     [1, 1, 1, 1, 1, 1, 1, 1],
     [1, 1, 1, 1, 1, 1, 1, 1],
     [1, 1, 1, 1, 1, 1, 1, 1],
     [1, 1, 1, 1, 1, 1, 1, 1],
     [1, 1, 1, 1, 1, 1, 1, 1],
     [1, 1, 1, 1, 1, 1, 1, 1],
     [1, 1, 1, 1, 1, 1, 1, 1],
     [1, 1, 1, 1, 1, 1, 1, 1],
     [1, 1, 1, 1, 1, 1, 1, 1],
     [1, 1, 1, 1, 1, 1, 1, 1],
     [1, 1, 1, 1, 1, 1, 1, 1],
     [1, 1, 1, 1, 1, 1, 1, 1],
     [1, 1, 1, 1, 1, 1, 1, 1],
     [1, 1, 1, 1, 1, 1, 1, 1],
     [1, 1, 1, 1, 1, 1, 1, 1],
     [1, 1, 1, 1, 1, 1, 1, 1],
     [1, 1, 1, 1, 1, 1, 1, 1],
     [1, 1, 1, 1, 1, 1, 1, 1],
     [1, 1, 1, 1, 1, 1, 1, 1],
     [1, 1, 1, 1, 1, 1, 1, 1],
     [1, 1, 1, 1, 1, 1, 1, 1],
     [1, 1, 1, 1, 1, 1, 1, 1],
     [1, 1, 1, 1, 1, 1, 1, 1],
     [1, 1, 1, 1, 1, 1, 1, 1],
     [1, 1, 1, 1, 1, 1, 1, 1],
     [1, 1, 1, 1, 1, 1, 1, 1],
     [1, 1, 1, 1, 1, 1, 1, 1],
     [1, 1, 1, 1, 1, 1, 1, 1],
     [1, 1, 1, 1, 1, 1, 1, 1],
     [1, 1, 1, 1, 1, 1, 1, 1],
     [1, 1, 1, 1, 1, 1, 1, 1],
     [1, 1, 1, 1, 1, 1, 1, 1],
     [1, 1, 1, 1, 1, 1, 1, 1],
     [1, 1, 1, 1, 1, 1, 1, 1],
     [1, 1, 1, 1, 1, 1, 1, 1],
     [1, 1, 1, 1, 1, 1, 1, 1],
     [1, 1, 1, 1, 1, 1, 1, 1],
     [1, 1, 1, 1, 1, 1, 1, 1],
     [1, 1, 1, 1, 1, 1, 1, 1],
     [1, 1, 1, 1, 1, 1, 1, 1],
     [1, 1, 1, 1, 1, 1, 1, 1],
     [1, 1, 1, 1, 1, 1, 1, 1],
     [1, 1, 1, 1, 1, 1, 1, 1],
     [1, 1, 1, 1, 1, 1, 1, 1],
     [1, 1, 1, 1, 1, 1, 1, 1],
     [1, 1, 1, 1, 1, 1, 1, 1],
     [1, 1, 1, 1, 1, 1, 1, 1],
     [1, 1, 1, 1, 1, 1, 1, 1],
     [1, 1, 1, 1, 1, 1, 1, 1],
     [1, 1, 1, 1, 1, 1, 1, 1],
     [1, 1, 1, 1, 1, 1, 1, 1],
     [1, 1, 1, 1, 1, 1, 1, 1],
     [1, 1, 1, 1, 1, 1, 1, 1],
     [1, 1, 1, 1, 1, 1, 1, 1],
     [1, 1, 1, 1, 1, 1, 1, 1],
     [1, 1, 1, 1, 1, 1, 1, 1],
     [1, 1, 1, 1, 1, 1, 1, 1],
     [1, 1, 1, 1, 1, 1, 1, 1],
     [1, 1, 1, 1, 1, 1, 1, 1],
     [1, 1, 1, 1, 1, 1, 1, 1],
     [1, 1, 1, 1, 1, 1, 1, 1],
     [1, 1, 1, 1, 1, 1, 1, 1],
     [1, 1, 1, 1, 1, 1, 1, 1],
     [1, 1, 1, 1, 1, 1, 1, 1],
     [1, 1, 1, 1, 1, 1, 1, 1],
     [1, 1, 1, 1, 1, 1, 1, 1],
     [1, 1, 1, 1, 1, 1, 1, 1],
     [1, 1, 1, 1, 1, 1, 1, 1],
     [1, 1, 1, 1, 1, 1, 1, 1],
     [1, 1, 1, 1, 1, 1, 1, 1],
     [1, 1, 1, 1, 1, 1, 1, 1],
     [1, 1, 1, 1, 1, 1, 1, 1],
     [1, 1, 1, 1, 1, 1, 1, 1],
     [1, 1, 1, 1, 1, 1, 1, 1],
     [1, 1, 1, 1, 1, 1, 1, 1],
     [1, 1, 1, 1, 1, 1, 1, 1],
     [1, 1, 1, 1, 1, 1, 1, 1],
     [1, 1, 1, 1, 1, 1, 1, 1],
     [1, 1, 1, 1, 1, 1, 1, 1],
     [1, 1, 1, 1, 1, 1, 1, 1],
     [1, 1, 1, 1, 1, 1, 1, 1],
     [1, 1, 1, 1, 1, 1, 1, 1],
     [1, 1, 1, 1, 1, 1, 1, 1],
     [1, 1, 1, 1, 1, 1, 1, 1],
     [1, 1, 1, 1, 1, 1, 1, 1],
     [1, 1, 1, 1, 1, 1, 1, 1],
     [1, 1, 1, 1, 1, 1, 1, 1],
     [1, 1, 1, 1, 1, 1, 1, 1],
     [1, 1, 1, 1, 1, 1, 1, 1],
     [1, 1, 1, 1, 1, 1, 1, 1],
     [1, 1, 1, 1, 1, 1, 1, 1],
     [1, 1, 1, 1, 1, 1, 1, 1],
     [1, 1, 1, 1, 1, 1, 1, 1],
     [1, 1, 1, 1, 1, 1, 1, 1],
     [1, 1, 1, 1, 1, 1, 1, 1],
     [1, 1, 1, 1, 1, 1, 1, 1],
     [1, 1, 1, 1, 1, 1, 1, 1],
     [1, 1, 1, 1, 1, 1, 1, 1],
     [1, 1, 1, 1, 1, 1, 1, 1],
     [1, 1, 1, 1, 1, 1, 1, 1],
     [1, 1, 1, 1, 1, 1, 1, 1],
     [1, 1, 1, 1, 1, 1, 1, 1],
     [1, 1, 1, 1, 1, 1, 1, 1],
     [1, 1, 1, 1, 1, 1, 1, 1]]"

definition sup_cond_spaces_25 :: "int list list" where
  "sup_cond_spaces_25 =
    [[1, 1, 1, 1, 1, 1, 1, 1],
     [1, 1, 1, 1, 1, 1, 1, 1],
     [1, 1, 1, 1, 1, 1, 1, 1],
     [1, 1, 1, 1, 1, 1, 1, 1],
     [1, 1, 1, 1, 1, 1, 1, 1],
     [1, 1, 1, 1, 1, 1, 1, 1],
     [1, 1, 1, 1, 1, 1, 1, 1],
     [1, 1, 1, 1, 1, 1, 1, 1],
     [1, 1, 1, 1, 1, 1, 1, 1],
     [1, 1, 1, 1, 1, 1, 1, 1],
     [1, 1, 1, 1, 1, 1, 1, 1],
     [1, 1, 1, 1, 1, 1, 1, 1],
     [1, 1, 1, 1, 1, 1, 1, 1],
     [1, 1, 1, 1, 1, 1, 1, 1],
     [1, 1, 1, 1, 1, 1, 1, 1],
     [1, 1, 1, 1, 1, 1, 1, 1],
     [1, 1, 1, 1, 1, 1, 1, 1],
     [1, 1, 1, 1, 1, 1, 1, 1],
     [1, 1, 1, 1, 1, 1, 1, 1],
     [1, 1, 1, 1, 1, 1, 1, 1],
     [1, 1, 1, 1, 1, 1, 1, 1],
     [1, 1, 1, 1, 1, 1, 1, 1],
     [1, 1, 1, 1, 1, 1, 1, 1],
     [1, 1, 1, 1, 1, 1, 1, 1],
     [1, 1, 1, 1, 1, 1, 1, 1],
     [1, 1, 1, 1, 1, 1, 1, 1],
     [1, 1, 1, 1, 1, 1, 1, 1],
     [1, 1, 1, 1, 1, 1, 1, 1],
     [1, 1, 1, 1, 1, 1, 1, 1],
     [1, 1, 1, 1, 1, 1, 1, 1],
     [1, 1, 1, 1, 1, 1, 1, 1],
     [1, 1, 1, 1, 1, 1, 1, 1],
     [1, 1, 1, 1, 1, 1, 1, 1],
     [1, 1, 1, 1, 1, 1, 1, 1],
     [1, 1, 1, 1, 1, 1, 1, 1],
     [1, 1, 1, 1, 1, 1, 1, 1],
     [1, 1, 1, 1, 1, 1, 1, 1],
     [1, 1, 1, 1, 1, 1, 1, 1],
     [1, 1, 1, 1, 1, 1, 1, 1],
     [1, 1, 1, 1, 1, 1, 1, 1],
     [1, 1, 1, 1, 1, 1, 1, 1],
     [1, 1, 1, 1, 1, 1, 1, 1],
     [1, 1, 1, 1, 1, 1, 1, 1],
     [1, 1, 1, 1, 1, 1, 1, 1],
     [1, 1, 1, 1, 1, 1, 1, 1],
     [1, 1, 1, 1, 1, 1, 1, 1],
     [1, 1, 1, 1, 1, 1, 1, 1],
     [1, 1, 1, 1, 1, 1, 1, 1],
     [1, 1, 1, 1, 1, 1, 1, 1],
     [1, 1, 1, 1, 1, 1, 1, 1],
     [1, 1, 1, 1, 1, 1, 1, 1],
     [1, 1, 1, 1, 1, 1, 1, 1],
     [1, 1, 1, 1, 1, 1, 1, 1],
     [1, 1, 1, 1, 1, 1, 1, 1],
     [1, 1, 1, 1, 1, 1, 1, 1],
     [1, 1, 1, 1, 1, 1, 1, 1],
     [1, 1, 1, 1, 1, 1, 1, 1],
     [1, 1, 1, 1, 1, 1, 1, 1],
     [1, 1, 1, 1, 1, 1, 1, 1],
     [1, 1, 1, 1, 1, 1, 1, 1],
     [1, 1, 1, 1, 1, 1, 1, 1],
     [1, 1, 1, 1, 1, 1, 1, 1],
     [1, 1, 1, 1, 1, 1, 1, 1],
     [1, 1, 1, 1, 1, 1, 1, 1],
     [1, 1, 1, 1, 1, 1, 1, 1],
     [1, 1, 1, 1, 1, 1, 1, 1],
     [1, 1, 1, 1, 1, 1, 1, 1],
     [1, 1, 1, 1, 1, 1, 1, 1],
     [1, 1, 1, 1, 1, 1, 1, 1],
     [1, 1, 1, 1, 1, 1, 1, 1],
     [1, 1, 1, 1, 1, 1, 1, 1],
     [1, 1, 1, 1, 1, 1, 1, 1],
     [1, 1, 1, 1, 1, 1, 1, 1],
     [1, 1, 1, 1, 1, 1, 1, 1],
     [1, 1, 1, 1, 1, 1, 1, 1],
     [1, 1, 1, 1, 1, 1, 1, 1],
     [1, 1, 1, 1, 1, 1, 1, 1],
     [1, 1, 1, 1, 1, 1, 1, 1],
     [1, 1, 1, 1, 1, 1, 1, 1],
     [1, 1, 1, 1, 1, 1, 1, 1],
     [1, 1, 1, 1, 1, 1, 1, 1],
     [1, 1, 1, 1, 1, 1, 1, 1],
     [1, 1, 1, 1, 1, 1, 1, 1],
     [1, 1, 1, 1, 1, 1, 1, 1],
     [1, 1, 1, 1, 1, 1, 1, 1],
     [1, 1, 1, 1, 1, 1, 1, 1],
     [1, 1, 1, 1, 1, 1, 1, 1],
     [1, 1, 1, 1, 1, 1, 1, 1],
     [1, 1, 1, 1, 1, 1, 1, 1],
     [1, 1, 1, 1, 1, 1, 1, 1],
     [1, 1, 1, 1, 1, 1, 1, 1],
     [1, 1, 1, 1, 1, 1, 1, 1],
     [1, 1, 1, 1, 1, 1, 1, 1],
     [1, 1, 1, 1, 1, 1, 1, 1],
     [1, 1, 1, 1, 1, 1, 1, 1],
     [1, 1, 1, 1, 1, 1, 1, 1],
     [1, 1, 1, 1, 1, 1, 1, 1],
     [1, 1, 1, 1, 1, 1, 1, 1],
     [1, 1, 1, 1, 1, 1, 1, 1],
     [1, 1, 1, 1, 1, 1, 1, 1],
     [1, 1, 1, 1, 1, 1, 1, 1],
     [1, 1, 1, 1, 1, 1, 1, 1],
     [1, 1, 1, 1, 1, 1, 1, 1],
     [1, 1, 1, 1, 1, 1, 1, 1],
     [1, 1, 1, 1, 1, 1, 1, 1],
     [1, 1, 1, 1, 1, 1, 1, 1],
     [1, 1, 1, 1, 1, 1, 1, 1],
     [1, 1, 1, 1, 1, 1, 1, 1],
     [1, 1, 1, 1, 1, 1, 1, 1],
     [1, 1, 1, 1, 1, 1, 1, 1],
     [1, 1, 1, 1, 1, 1, 1, 1],
     [1, 1, 1, 1, 1, 1, 1, 1],
     [1, 1, 1, 1, 1, 1, 1, 1],
     [1, 1, 1, 1, 1, 1, 1, 1],
     [1, 1, 1, 1, 1, 1, 1, 1],
     [1, 1, 1, 1, 1, 1, 1, 1],
     [1, 1, 1, 1, 1, 1, 1, 1],
     [1, 1, 1, 1, 1, 1, 1, 1],
     [1, 1, 1, 1, 1, 1, 1, 1],
     [1, 1, 1, 1, 1, 1, 1, 1],
     [1, 1, 1, 1, 1, 1, 1, 1],
     [1, 1, 1, 1, 1, 1, 1, 1],
     [1, 1, 1, 1, 1, 1, 1, 1],
     [1, 1, 1, 1, 1, 1, 1, 1],
     [1, 1, 1, 1, 1, 1, 1, 1],
     [1, 1, 1, 1, 1, 1, 1, 1],
     [1, 1, 1, 1, 1, 1, 1, 1],
     [1, 1, 1, 1, 1, 1, 1, 1],
     [1, 1, 1, 1, 1, 1, 1, 1],
     [1, 1, 1, 1, 1, 1, 1, 1],
     [1, 1, 1, 1, 1, 1, 1, 1],
     [1, 1, 1, 1, 1, 1, 1, 1],
     [1, 1, 1, 1, 1, 1, 1, 1],
     [1, 1, 1, 1, 1, 1, 1, 1],
     [1, 1, 1, 1, 1, 1, 1, 1],
     [1, 1, 1, 1, 1, 1, 1, 1],
     [1, 1, 1, 1, 1, 1, 1, 1],
     [1, 1, 1, 1, 1, 1, 1, 1],
     [1, 1, 1, 1, 1, 1, 1, 1],
     [1, 1, 1, 1, 1, 1, 1, 1],
     [1, 1, 1, 1, 1, 1, 1, 1],
     [1, 1, 1, 1, 1, 1, 1, 1],
     [1, 1, 1, 1, 1, 1, 1, 1],
     [1, 1, 1, 1, 1, 1, 1, 1],
     [1, 1, 1, 1, 1, 1, 1, 1],
     [1, 1, 1, 1, 1, 1, 1, 1],
     [1, 1, 1, 1, 1, 1, 1, 1],
     [1, 1, 1, 1, 1, 1, 1, 1],
     [1, 1, 1, 1, 1, 1, 1, 1],
     [1, 1, 1, 1, 1, 1, 1, 1]]"

definition sup_cond_spaces_26 :: "int list list" where
  "sup_cond_spaces_26 =
    [[1, 1, 1, 1, 1, 1, 1, 1],
     [1, 1, 1, 1, 1, 1, 1, 1],
     [1, 1, 1, 1, 1, 1, 1, 1],
     [1, 1, 1, 1, 1, 1, 1, 1],
     [1, 1, 1, 1, 1, 1, 1, 1],
     [1, 1, 1, 1, 1, 1, 1, 1],
     [1, 1, 1, 1, 1, 1, 1, 1],
     [1, 1, 1, 1, 1, 1, 1, 1],
     [1, 1, 1, 1, 1, 1, 1, 1],
     [1, 1, 1, 1, 1, 1, 1, 1],
     [1, 1, 1, 1, 1, 1, 1, 1],
     [1, 1, 1, 1, 1, 1, 1, 1],
     [1, 1, 1, 1, 1, 1, 1, 1],
     [1, 1, 1, 1, 1, 1, 1, 1],
     [1, 1, 1, 1, 1, 1, 1, 1],
     [1, 1, 1, 1, 1, 1, 1, 1],
     [1, 1, 1, 1, 1, 1, 1, 1],
     [1, 1, 1, 1, 1, 1, 1, 1],
     [1, 1, 1, 1, 1, 1, 1, 1],
     [1, 1, 1, 1, 1, 1, 1, 1],
     [1, 1, 1, 1, 1, 1, 1, 1],
     [1, 1, 1, 1, 1, 1, 1, 1],
     [1, 1, 1, 1, 1, 1, 1, 1],
     [1, 1, 1, 1, 1, 1, 1, 1],
     [1, 1, 1, 1, 1, 1, 1, 1],
     [1, 1, 1, 1, 1, 1, 1, 1],
     [1, 1, 1, 1, 1, 1, 1, 1],
     [1, 1, 1, 1, 1, 1, 1, 1],
     [1, 1, 1, 1, 1, 1, 1, 1],
     [1, 1, 1, 1, 1, 1, 1, 1],
     [1, 1, 1, 1, 1, 1, 1, 1],
     [1, 1, 1, 1, 1, 1, 1, 1],
     [1, 1, 1, 1, 1, 1, 1, 1],
     [1, 1, 1, 1, 1, 1, 1, 1],
     [1, 1, 1, 1, 1, 1, 1, 1],
     [1, 1, 1, 1, 1, 1, 1, 1],
     [1, 1, 1, 1, 1, 1, 1, 1],
     [1, 1, 1, 1, 1, 1, 1, 1],
     [1, 1, 1, 1, 1, 1, 1, 1],
     [1, 1, 1, 1, 1, 1, 1, 1],
     [1, 1, 1, 1, 1, 1, 1, 1],
     [1, 1, 1, 1, 1, 1, 1, 1],
     [1, 1, 1, 1, 1, 1, 1, 1],
     [1, 1, 1, 1, 1, 1, 1, 1],
     [1, 1, 1, 1, 1, 1, 1, 1],
     [1, 1, 1, 1, 1, 1, 1, 1],
     [1, 1, 1, 1, 1, 1, 1, 1],
     [1, 1, 1, 1, 1, 1, 1, 1],
     [1, 1, 1, 1, 1, 1, 1, 1],
     [1, 1, 1, 1, 1, 1, 1, 1],
     [1, 1, 1, 1, 1, 1, 1, 1],
     [1, 1, 1, 1, 1, 1, 1, 1],
     [1, 1, 1, 1, 1, 1, 1, 1],
     [1, 1, 1, 1, 1, 1, 1, 1],
     [1, 1, 1, 1, 1, 1, 1, 1],
     [1, 1, 1, 1, 1, 1, 1, 1],
     [1, 1, 1, 1, 1, 1, 1, 1],
     [1, 1, 1, 1, 1, 1, 1, 1],
     [1, 1, 1, 1, 1, 1, 1, 1],
     [1, 1, 1, 1, 1, 1, 1, 1],
     [1, 1, 1, 1, 1, 1, 1, 1],
     [1, 1, 1, 1, 1, 1, 1, 1],
     [1, 1, 1, 1, 1, 1, 1, 1],
     [1, 1, 1, 1, 1, 1, 1, 1],
     [1, 1, 1, 1, 1, 1, 1, 1],
     [1, 1, 1, 1, 1, 1, 1, 1],
     [1, 1, 1, 1, 1, 1, 1, 1],
     [1, 1, 1, 1, 1, 1, 1, 1],
     [1, 1, 1, 1, 1, 1, 1, 1],
     [1, 1, 1, 1, 1, 1, 1, 1],
     [1, 1, 1, 1, 1, 1, 1, 1],
     [1, 1, 1, 1, 1, 1, 1, 1],
     [1, 1, 1, 1, 1, 1, 1, 1],
     [1, 1, 1, 1, 1, 1, 1, 1],
     [1, 1, 1, 1, 1, 1, 1, 1],
     [1, 1, 1, 1, 1, 1, 1, 1],
     [1, 1, 1, 1, 1, 1, 1, 1],
     [1, 1, 1, 1, 1, 1, 1, 1],
     [1, 1, 1, 1, 1, 1, 1, 1],
     [1, 1, 1, 1, 1, 1, 1, 1],
     [1, 1, 1, 1, 1, 1, 1, 1],
     [1, 1, 1, 1, 1, 1, 1, 1],
     [1, 1, 1, 1, 1, 1, 1, 1],
     [1, 1, 1, 1, 1, 1, 1, 1],
     [1, 1, 1, 1, 1, 1, 1, 1],
     [1, 1, 1, 1, 1, 1, 1, 1],
     [1, 1, 1, 1, 1, 1, 1, 1],
     [1, 1, 1, 1, 1, 1, 1, 1],
     [1, 1, 1, 1, 1, 1, 1, 1],
     [1, 1, 1, 1, 1, 1, 1, 1],
     [1, 1, 1, 1, 1, 1, 1, 1],
     [1, 1, 1, 1, 1, 1, 1, 1],
     [1, 1, 1, 1, 1, 1, 1, 1],
     [1, 1, 1, 1, 1, 1, 1, 1],
     [1, 1, 1, 1, 1, 1, 1, 1],
     [1, 1, 1, 1, 1, 1, 1, 1],
     [1, 1, 1, 1, 1, 1, 1, 1],
     [1, 1, 1, 1, 1, 1, 1, 1],
     [1, 1, 1, 1, 1, 1, 1, 1],
     [1, 1, 1, 1, 1, 1, 1, 1],
     [1, 1, 1, 1, 1, 1, 1, 1],
     [1, 1, 1, 1, 1, 1, 1, 1],
     [1, 1, 1, 1, 1, 1, 1, 1],
     [1, 1, 1, 1, 1, 1, 1, 1],
     [1, 1, 1, 1, 1, 1, 1, 1],
     [1, 1, 1, 1, 1, 1, 1, 1],
     [1, 1, 1, 1, 1, 1, 1, 1],
     [1, 1, 1, 1, 1, 1, 1, 1],
     [1, 1, 1, 1, 1, 1, 1, 1],
     [1, 1, 1, 1, 1, 1, 1, 1],
     [1, 1, 1, 1, 1, 1, 1, 1],
     [1, 1, 1, 1, 1, 1, 1, 1],
     [1, 1, 1, 1, 1, 1, 1, 1],
     [1, 1, 1, 1, 1, 1, 1, 1],
     [1, 1, 1, 1, 1, 1, 1, 1],
     [1, 1, 1, 1, 1, 1, 1, 1],
     [1, 1, 1, 1, 1, 1, 1, 1],
     [1, 1, 1, 1, 1, 1, 1, 1],
     [1, 1, 1, 1, 1, 1, 1, 1],
     [1, 1, 1, 1, 1, 1, 1, 1],
     [1, 1, 1, 1, 1, 1, 1, 1],
     [1, 1, 1, 1, 1, 1, 1, 1],
     [1, 1, 1, 1, 1, 1, 1, 1],
     [1, 1, 1, 1, 1, 1, 1, 1],
     [1, 1, 1, 1, 1, 1, 1, 1],
     [1, 1, 1, 1, 1, 1, 1, 1],
     [1, 1, 1, 1, 1, 1, 1, 1],
     [1, 1, 1, 1, 1, 1, 1, 1],
     [1, 1, 1, 1, 1, 1, 1, 1],
     [1, 1, 1, 1, 1, 1, 1, 1],
     [1, 1, 1, 1, 1, 1, 1, 1],
     [1, 1, 1, 1, 1, 1, 1, 1],
     [1, 1, 1, 1, 1, 1, 1, 1],
     [1, 1, 1, 1, 1, 1, 1, 1],
     [1, 1, 1, 1, 1, 1, 1, 1],
     [1, 1, 1, 1, 1, 1, 1, 1],
     [1, 1, 1, 1, 1, 1, 1, 1],
     [1, 1, 1, 1, 1, 1, 1, 1],
     [1, 1, 1, 1, 1, 1, 1, 1],
     [1, 1, 1, 1, 1, 1, 1, 1],
     [1, 1, 1, 1, 1, 1, 1, 1],
     [1, 1, 1, 1, 1, 1, 1, 1],
     [1, 1, 1, 1, 1, 1, 1, 1],
     [1, 1, 1, 1, 1, 1, 1, 1],
     [1, 1, 1, 1, 1, 1, 1, 1],
     [1, 1, 1, 1, 1, 1, 1, 1],
     [1, 1, 1, 1, 1, 1, 1, 1],
     [1, 1, 1, 1, 1, 1, 1, 1],
     [1, 1, 1, 1, 1, 1, 1, 1],
     [1, 1, 1, 1, 1, 1, 1, 1]]"

definition sup_cond_spaces_27 :: "int list list" where
  "sup_cond_spaces_27 =
    [[1, 1, 1, 1, 1, 1, 1, 1],
     [1, 1, 1, 1, 1, 1, 1, 1],
     [1, 1, 1, 1, 1, 1, 1, 1],
     [1, 1, 1, 1, 1, 1, 1, 1],
     [1, 1, 1, 1, 1, 1, 1, 1],
     [1, 1, 1, 1, 1, 1, 1, 1],
     [1, 1, 1, 1, 1, 1, 1, 1],
     [1, 1, 1, 1, 1, 1, 1, 1],
     [1, 1, 1, 1, 1, 1, 1, 1],
     [1, 1, 1, 1, 1, 1, 1, 1],
     [1, 1, 1, 1, 1, 1, 1, 1],
     [1, 1, 1, 1, 1, 1, 1, 1],
     [1, 1, 1, 1, 1, 1, 1, 1],
     [1, 1, 1, 1, 1, 1, 1, 1],
     [1, 1, 1, 1, 1, 1, 1, 1],
     [1, 1, 1, 1, 1, 1, 1, 1],
     [1, 1, 1, 1, 1, 1, 1, 1],
     [1, 1, 1, 1, 1, 1, 1, 1],
     [1, 1, 1, 1, 1, 1, 1, 1],
     [1, 1, 1, 1, 1, 1, 1, 1],
     [1, 1, 1, 1, 1, 1, 1, 1],
     [1, 1, 1, 1, 1, 1, 1, 1],
     [1, 1, 1, 1, 1, 1, 1, 1],
     [1, 1, 1, 1, 1, 1, 1, 1],
     [1, 1, 1, 1, 1, 1, 1, 1],
     [1, 1, 1, 1, 1, 1, 1, 1],
     [1, 1, 1, 1, 1, 1, 1, 1],
     [1, 1, 1, 1, 1, 1, 1, 1],
     [1, 1, 1, 1, 1, 1, 1, 1],
     [1, 1, 1, 1, 1, 1, 1, 1],
     [1, 1, 1, 1, 1, 1, 1, 1],
     [1, 1, 1, 1, 1, 1, 1, 1],
     [1, 1, 1, 1, 1, 1, 1, 1],
     [1, 1, 1, 1, 1, 1, 1, 1],
     [1, 1, 1, 1, 1, 1, 1, 1],
     [1, 1, 1, 1, 1, 1, 1, 1],
     [1, 1, 1, 1, 1, 1, 1, 1],
     [1, 1, 1, 1, 1, 1, 1, 1],
     [1, 1, 1, 1, 1, 1, 1, 1],
     [1, 1, 1, 1, 1, 1, 1, 1],
     [1, 1, 1, 1, 1, 1, 1, 1],
     [1, 1, 1, 1, 1, 1, 1, 1],
     [1, 1, 1, 1, 1, 1, 1, 1],
     [1, 1, 1, 1, 1, 1, 1, 1],
     [1, 1, 1, 1, 1, 1, 1, 1],
     [1, 1, 1, 1, 1, 1, 1, 1],
     [1, 1, 1, 1, 1, 1, 1, 1],
     [1, 1, 1, 1, 1, 1, 1, 1],
     [1, 1, 1, 1, 1, 1, 1, 1],
     [1, 1, 1, 1, 1, 1, 1, 1],
     [1, 1, 1, 1, 1, 1, 1, 1],
     [1, 1, 1, 1, 1, 1, 1, 1],
     [1, 1, 1, 1, 1, 1, 1, 1],
     [1, 1, 1, 1, 1, 1, 1, 1],
     [1, 1, 1, 1, 1, 1, 1, 1],
     [1, 1, 1, 1, 1, 1, 1, 1],
     [1, 1, 1, 1, 1, 1, 1, 1],
     [1, 1, 1, 1, 1, 1, 1, 1],
     [1, 1, 1, 1, 1, 1, 1, 1],
     [1, 1, 1, 1, 1, 1, 1, 1],
     [1, 1, 1, 1, 1, 1, 1, 1],
     [1, 1, 1, 1, 1, 1, 1, 1],
     [1, 1, 1, 1, 1, 1, 1, 1],
     [1, 1, 1, 1, 1, 1, 1, 1],
     [1, 1, 1, 1, 1, 1, 1, 1],
     [1, 1, 1, 1, 1, 1, 1, 1],
     [1, 1, 1, 1, 1, 1, 1, 1],
     [1, 1, 1, 1, 1, 1, 1, 1],
     [1, 1, 1, 1, 1, 1, 1, 1],
     [1, 1, 1, 1, 1, 1, 1, 1],
     [1, 1, 1, 1, 1, 1, 1, 1],
     [1, 1, 1, 1, 1, 1, 1, 1],
     [1, 1, 1, 1, 1, 1, 1, 1],
     [1, 1, 1, 1, 1, 1, 1, 1],
     [1, 1, 1, 1, 1, 1, 1, 1],
     [1, 1, 1, 1, 1, 1, 1, 1],
     [1, 1, 1, 1, 1, 1, 1, 1],
     [1, 1, 1, 1, 1, 1, 1, 1],
     [1, 1, 1, 1, 1, 1, 1, 1],
     [1, 1, 1, 1, 1, 1, 1, 1],
     [1, 1, 1, 1, 1, 1, 1, 1],
     [1, 1, 1, 1, 1, 1, 1, 1],
     [1, 1, 1, 1, 1, 1, 1, 1],
     [1, 1, 1, 1, 1, 1, 1, 1],
     [1, 1, 1, 1, 1, 1, 1, 1],
     [1, 1, 1, 1, 1, 1, 1, 1],
     [1, 1, 1, 1, 1, 1, 1, 1],
     [1, 1, 1, 1, 1, 1, 1, 1],
     [1, 1, 1, 1, 1, 1, 1, 1],
     [1, 1, 1, 1, 1, 1, 1, 1],
     [1, 1, 1, 1, 1, 1, 1, 1],
     [1, 1, 1, 1, 1, 1, 1, 1],
     [1, 1, 1, 1, 1, 1, 1, 1],
     [1, 1, 1, 1, 1, 1, 1, 1],
     [1, 1, 1, 1, 1, 1, 1, 1],
     [1, 1, 1, 1, 1, 1, 1, 1],
     [1, 1, 1, 1, 1, 1, 1, 1],
     [1, 1, 1, 1, 1, 1, 1, 1],
     [1, 1, 1, 1, 1, 1, 1, 1],
     [1, 1, 1, 1, 1, 1, 1, 1],
     [1, 1, 1, 1, 1, 1, 1, 1],
     [1, 1, 1, 1, 1, 1, 1, 1],
     [1, 1, 1, 1, 1, 1, 1, 1],
     [1, 1, 1, 1, 1, 1, 1, 1],
     [1, 1, 1, 1, 1, 1, 1, 1],
     [1, 1, 1, 1, 1, 1, 1, 1],
     [1, 1, 1, 1, 1, 1, 1, 1],
     [1, 1, 1, 1, 1, 1, 1, 1],
     [1, 1, 1, 1, 1, 1, 1, 1],
     [1, 1, 1, 1, 1, 1, 1, 1],
     [1, 1, 1, 1, 1, 1, 1, 1],
     [1, 1, 1, 1, 1, 1, 1, 1],
     [1, 1, 1, 1, 1, 1, 1, 1],
     [1, 1, 1, 1, 1, 1, 1, 1],
     [1, 1, 1, 1, 1, 1, 1, 1],
     [1, 1, 1, 1, 1, 1, 1, 1],
     [1, 1, 1, 1, 1, 1, 1, 1],
     [1, 1, 1, 1, 1, 1, 1, 1],
     [1, 1, 1, 1, 1, 1, 1, 1],
     [1, 1, 1, 1, 1, 1, 1, 1],
     [1, 1, 1, 1, 1, 1, 1, 1],
     [1, 1, 1, 1, 1, 1, 1, 1],
     [1, 1, 1, 1, 1, 1, 1, 1],
     [1, 1, 1, 1, 1, 1, 1, 1],
     [1, 1, 1, 1, 1, 1, 1, 1],
     [1, 1, 1, 1, 1, 1, 1, 1],
     [1, 1, 1, 1, 1, 1, 1, 1],
     [1, 1, 1, 1, 1, 1, 1, 1],
     [1, 1, 1, 1, 1, 1, 1, 1],
     [1, 1, 1, 1, 1, 1, 1, 1],
     [1, 1, 1, 1, 1, 1, 1, 1],
     [1, 1, 1, 1, 1, 1, 1, 1],
     [1, 1, 1, 1, 1, 1, 1, 1],
     [1, 1, 1, 1, 1, 1, 1, 1],
     [1, 1, 1, 1, 1, 1, 1, 1],
     [1, 1, 1, 1, 1, 1, 1, 1],
     [1, 1, 1, 1, 1, 1, 1, 1],
     [1, 1, 1, 1, 1, 1, 1, 1],
     [1, 1, 1, 1, 1, 1, 1, 1],
     [1, 1, 1, 1, 1, 1, 1, 1],
     [1, 1, 1, 1, 1, 1, 1, 1],
     [1, 1, 1, 1, 1, 1, 1, 1],
     [1, 1, 1, 1, 1, 1, 1, 1],
     [1, 1, 1, 1, 1, 1, 1, 1],
     [1, 1, 1, 1, 1, 1, 1, 1],
     [1, 1, 1, 1, 1, 1, 1, 1],
     [1, 1, 1, 1, 1, 1, 1, 1],
     [1, 1, 1, 1, 1, 1, 1, 1],
     [1, 1, 1, 1, 1, 1, 1, 1],
     [1, 1, 1, 1, 1, 1, 1, 1]]"

definition sup_cond_spaces_28 :: "int list list" where
  "sup_cond_spaces_28 =
    [[1, 1, 1, 1, 1, 1, 1, 1],
     [1, 1, 1, 1, 1, 1, 1, 1],
     [1, 1, 1, 1, 1, 1, 1, 1],
     [1, 1, 1, 1, 1, 1, 1, 1],
     [1, 1, 1, 1, 1, 1, 1, 1],
     [1, 1, 1, 1, 1, 1, 1, 1],
     [1, 1, 1, 1, 1, 1, 1, 1],
     [1, 1, 1, 1, 1, 1, 1, 1],
     [1, 1, 1, 1, 1, 1, 1, 1],
     [1, 1, 1, 1, 1, 1, 1, 1],
     [1, 1, 1, 1, 1, 1, 1, 1],
     [1, 1, 1, 1, 1, 1, 1, 1],
     [1, 1, 1, 1, 1, 1, 1, 1],
     [1, 1, 1, 1, 1, 1, 1, 1],
     [1, 1, 1, 1, 1, 1, 1, 1],
     [1, 1, 1, 1, 1, 1, 1, 1],
     [1, 1, 1, 1, 1, 1, 1, 1],
     [1, 1, 1, 1, 1, 1, 1, 1],
     [1, 1, 1, 1, 1, 1, 1, 1],
     [1, 1, 1, 1, 1, 1, 1, 1],
     [1, 1, 1, 1, 1, 1, 1, 1],
     [1, 1, 1, 1, 1, 1, 1, 1],
     [1, 1, 1, 1, 1, 1, 1, 1],
     [1, 1, 1, 1, 1, 1, 1, 1],
     [1, 1, 1, 1, 1, 1, 1, 1],
     [1, 1, 1, 1, 1, 1, 1, 1],
     [1, 1, 1, 1, 1, 1, 1, 1],
     [1, 1, 1, 1, 1, 1, 1, 1],
     [1, 1, 1, 1, 1, 1, 1, 1],
     [1, 1, 1, 1, 1, 1, 1, 1],
     [1, 1, 1, 1, 1, 1, 1, 1],
     [1, 1, 1, 1, 1, 1, 1, 1],
     [1, 1, 1, 1, 1, 1, 1, 1],
     [1, 1, 1, 1, 1, 1, 1, 1],
     [1, 1, 1, 1, 1, 1, 1, 1],
     [1, 1, 1, 1, 1, 1, 1, 1],
     [1, 1, 1, 1, 1, 1, 1, 1],
     [1, 1, 1, 1, 1, 1, 1, 1],
     [1, 1, 1, 1, 1, 1, 1, 1],
     [1, 1, 1, 1, 1, 1, 1, 1],
     [1, 1, 1, 1, 1, 1, 1, 1],
     [1, 1, 1, 1, 1, 1, 1, 1],
     [1, 1, 1, 1, 1, 1, 1, 1],
     [1, 1, 1, 1, 1, 1, 1, 1],
     [1, 1, 1, 1, 1, 1, 1, 1],
     [1, 1, 1, 1, 1, 1, 1, 1],
     [1, 1, 1, 1, 1, 1, 1, 1],
     [1, 1, 1, 1, 1, 1, 1, 1],
     [1, 1, 1, 1, 1, 1, 1, 1],
     [1, 1, 1, 1, 1, 1, 1, 1],
     [1, 1, 1, 1, 1, 1, 1, 1],
     [1, 1, 1, 1, 1, 1, 1, 1],
     [1, 1, 1, 1, 1, 1, 1, 1],
     [1, 1, 1, 1, 1, 1, 1, 1],
     [1, 1, 1, 1, 1, 1, 1, 1],
     [1, 1, 1, 1, 1, 1, 1, 1],
     [1, 1, 1, 1, 1, 1, 1, 1],
     [1, 1, 1, 1, 1, 1, 1, 1],
     [1, 1, 1, 1, 1, 1, 1, 1],
     [1, 1, 1, 1, 1, 1, 1, 1],
     [1, 1, 1, 1, 1, 1, 1, 1],
     [1, 1, 1, 1, 1, 1, 1, 1],
     [1, 1, 1, 1, 1, 1, 1, 1],
     [1, 1, 1, 1, 1, 1, 1, 1],
     [1, 1, 1, 1, 1, 1, 1, 1],
     [1, 1, 1, 1, 1, 1, 1, 1],
     [1, 1, 1, 1, 1, 1, 1, 1],
     [1, 1, 1, 1, 1, 1, 1, 1],
     [1, 1, 1, 1, 1, 1, 1, 1],
     [1, 1, 1, 1, 1, 1, 1, 1],
     [1, 1, 1, 1, 1, 1, 1, 1],
     [1, 1, 1, 1, 1, 1, 1, 1],
     [1, 1, 1, 1, 1, 1, 1, 1],
     [1, 1, 1, 1, 1, 1, 1, 1],
     [1, 1, 1, 1, 1, 1, 1, 1],
     [1, 1, 1, 1, 1, 1, 1, 1],
     [1, 1, 1, 1, 1, 1, 1, 1],
     [1, 1, 1, 1, 1, 1, 1, 1],
     [1, 1, 1, 1, 1, 1, 1, 1],
     [1, 1, 1, 1, 1, 1, 1, 1],
     [1, 1, 1, 1, 1, 1, 1, 1],
     [1, 1, 1, 1, 1, 1, 1, 1],
     [1, 1, 1, 1, 1, 1, 1, 1],
     [1, 1, 1, 1, 1, 1, 1, 1],
     [1, 1, 1, 1, 1, 1, 1, 1],
     [1, 1, 1, 1, 1, 1, 1, 1],
     [1, 1, 1, 1, 1, 1, 1, 1],
     [1, 1, 1, 1, 1, 1, 1, 1],
     [1, 1, 1, 1, 1, 1, 1, 1],
     [1, 1, 1, 1, 1, 1, 1, 1],
     [1, 1, 1, 1, 1, 1, 1, 1],
     [1, 1, 1, 1, 1, 1, 1, 1],
     [1, 1, 1, 1, 1, 1, 1, 1],
     [1, 1, 1, 1, 1, 1, 1, 1],
     [1, 1, 1, 1, 1, 1, 1, 1],
     [1, 1, 1, 1, 1, 1, 1, 1],
     [1, 1, 1, 1, 1, 1, 1, 1],
     [1, 1, 1, 1, 1, 1, 1, 1],
     [1, 1, 1, 1, 1, 1, 1, 1],
     [1, 1, 1, 1, 1, 1, 1, 1],
     [1, 1, 1, 1, 1, 1, 1, 1],
     [1, 1, 1, 1, 1, 1, 1, 1],
     [1, 1, 1, 1, 1, 1, 1, 1],
     [1, 1, 1, 1, 1, 1, 1, 1],
     [1, 1, 1, 1, 1, 1, 1, 1],
     [1, 1, 1, 1, 1, 1, 1, 1],
     [1, 1, 1, 1, 1, 1, 1, 1],
     [1, 1, 1, 1, 1, 1, 1, 1],
     [1, 1, 1, 1, 1, 1, 1, 1],
     [1, 1, 1, 1, 1, 1, 1, 1],
     [1, 1, 1, 1, 1, 1, 1, 1],
     [1, 1, 1, 1, 1, 1, 1, 1],
     [1, 1, 1, 1, 1, 1, 1, 1],
     [1, 1, 1, 1, 1, 1, 1, 1],
     [1, 1, 1, 1, 1, 1, 1, 1],
     [1, 1, 1, 1, 1, 1, 1, 1],
     [1, 1, 1, 1, 1, 1, 1, 1],
     [1, 1, 1, 1, 1, 1, 1, 1],
     [1, 1, 1, 1, 1, 1, 1, 1],
     [1, 1, 1, 1, 1, 1, 1, 1],
     [1, 1, 1, 1, 1, 1, 1, 1],
     [1, 1, 1, 1, 1, 1, 1, 1],
     [1, 1, 1, 1, 1, 1, 1, 1],
     [1, 1, 1, 1, 1, 1, 1, 1],
     [1, 1, 1, 1, 1, 1, 1, 1],
     [1, 1, 1, 1, 1, 1, 1, 1],
     [1, 1, 1, 1, 1, 1, 1, 1],
     [1, 1, 1, 1, 1, 1, 1, 1],
     [1, 1, 1, 1, 1, 1, 1, 1],
     [1, 1, 1, 1, 1, 1, 1, 1],
     [1, 1, 1, 1, 1, 1, 1, 1],
     [1, 1, 1, 1, 1, 1, 1, 1],
     [1, 1, 1, 1, 1, 1, 1, 1],
     [1, 1, 1, 1, 1, 1, 1, 1],
     [1, 1, 1, 1, 1, 1, 1, 1],
     [1, 1, 1, 1, 1, 1, 1, 1],
     [1, 1, 1, 1, 1, 1, 1, 1],
     [1, 1, 1, 1, 1, 1, 1, 1],
     [1, 1, 1, 1, 1, 1, 1, 1],
     [1, 1, 1, 1, 1, 1, 1, 1],
     [1, 1, 1, 1, 1, 1, 1, 1],
     [1, 1, 1, 1, 1, 1, 1, 1],
     [1, 1, 1, 1, 1, 1, 1, 1],
     [1, 1, 1, 1, 1, 1, 1, 1],
     [1, 1, 1, 1, 1, 1, 1, 1],
     [1, 1, 1, 1, 1, 1, 1, 1],
     [1, 1, 1, 1, 1, 1, 1, 1],
     [1, 1, 1, 1, 1, 1, 1, 1],
     [1, 1, 1, 1, 1, 1, 1, 1],
     [1, 1, 1, 1, 1, 1, 1, 1]]"

definition sup_cond_spaces_29 :: "int list list" where
  "sup_cond_spaces_29 =
    [[1, 1, 1, 1, 1, 1, 1, 1],
     [1, 1, 1, 1, 1, 1, 1, 1],
     [1, 1, 1, 1, 1, 1, 1, 1],
     [1, 1, 1, 1, 1, 1, 1, 1],
     [1, 1, 1, 1, 1, 1, 1, 1],
     [1, 1, 1, 1, 1, 1, 1, 1],
     [1, 1, 1, 1, 1, 1, 1, 1],
     [1, 1, 1, 1, 1, 1, 1, 1],
     [1, 1, 1, 1, 1, 1, 1, 1],
     [1, 1, 1, 1, 1, 1, 1, 1],
     [1, 1, 1, 1, 1, 1, 1, 1],
     [1, 1, 1, 1, 1, 1, 1, 1],
     [1, 1, 1, 1, 1, 1, 1, 1],
     [1, 1, 1, 1, 1, 1, 1, 1],
     [1, 1, 1, 1, 1, 1, 1, 1],
     [1, 1, 1, 1, 1, 1, 1, 1],
     [1, 1, 1, 1, 1, 1, 1, 1],
     [1, 1, 1, 1, 1, 1, 1, 1],
     [1, 1, 1, 1, 1, 1, 1, 1],
     [1, 1, 1, 1, 1, 1, 1, 1],
     [1, 1, 1, 1, 1, 1, 1, 1],
     [1, 1, 1, 1, 1, 1, 1, 1],
     [1, 1, 1, 1, 1, 1, 1, 1],
     [1, 1, 1, 1, 1, 1, 1, 1],
     [1, 1, 1, 1, 1, 1, 1, 1],
     [1, 1, 1, 1, 1, 1, 1, 1],
     [1, 1, 1, 1, 1, 1, 1, 1],
     [1, 1, 1, 1, 1, 1, 1, 1],
     [1, 1, 1, 1, 1, 1, 1, 1],
     [1, 1, 1, 1, 1, 1, 1, 1],
     [1, 1, 1, 1, 1, 1, 1, 1],
     [1, 1, 1, 1, 1, 1, 1, 1],
     [1, 1, 1, 1, 1, 1, 1, 1],
     [1, 1, 1, 1, 1, 1, 1, 1],
     [1, 1, 1, 1, 1, 1, 1, 1],
     [1, 1, 1, 1, 1, 1, 1, 1],
     [1, 1, 1, 1, 1, 1, 1, 1],
     [1, 1, 1, 1, 1, 1, 1, 1],
     [1, 1, 1, 1, 1, 1, 1, 1],
     [1, 1, 1, 1, 1, 1, 1, 1],
     [1, 1, 1, 1, 1, 1, 1, 1],
     [1, 1, 1, 1, 1, 1, 1, 1],
     [1, 1, 1, 1, 1, 1, 1, 1],
     [1, 1, 1, 1, 1, 1, 1, 1],
     [1, 1, 1, 1, 1, 1, 1, 1],
     [1, 1, 1, 1, 1, 1, 1, 1],
     [1, 1, 1, 1, 1, 1, 1, 1],
     [1, 1, 1, 1, 1, 1, 1, 1],
     [1, 1, 1, 1, 1, 1, 1, 1],
     [1, 1, 1, 1, 1, 1, 1, 1],
     [1, 1, 1, 1, 1, 1, 1, 1],
     [1, 1, 1, 1, 1, 1, 1, 1],
     [1, 1, 1, 1, 1, 1, 1, 1],
     [1, 1, 1, 1, 1, 1, 1, 1],
     [1, 1, 1, 1, 1, 1, 1, 1],
     [1, 1, 1, 1, 1, 1, 1, 1],
     [1, 1, 1, 1, 1, 1, 1, 1],
     [1, 1, 1, 1, 1, 1, 1, 1],
     [1, 1, 1, 1, 1, 1, 1, 1],
     [1, 1, 1, 1, 1, 1, 1, 1],
     [1, 1, 1, 1, 1, 1, 1, 1],
     [1, 1, 1, 1, 1, 1, 1, 1],
     [1, 1, 1, 1, 1, 1, 1, 1],
     [1, 1, 1, 1, 1, 1, 1, 1],
     [1, 1, 1, 1, 1, 1, 1, 1],
     [1, 1, 1, 1, 1, 1, 1, 1],
     [1, 1, 1, 1, 1, 1, 1, 1],
     [1, 1, 1, 1, 1, 1, 1, 1],
     [1, 1, 1, 1, 1, 1, 1, 1],
     [1, 1, 1, 1, 1, 1, 1, 1],
     [1, 1, 1, 1, 1, 1, 1, 1],
     [1, 1, 1, 1, 1, 1, 1, 1],
     [1, 1, 1, 1, 1, 1, 1, 1],
     [1, 1, 1, 1, 1, 1, 1, 1],
     [1, 1, 1, 1, 1, 1, 1, 1],
     [1, 1, 1, 1, 1, 1, 1, 1],
     [1, 1, 1, 1, 1, 1, 1, 1],
     [1, 1, 1, 1, 1, 1, 1, 1],
     [1, 1, 1, 1, 1, 1, 1, 1],
     [1, 1, 1, 1, 1, 1, 1, 1],
     [1, 1, 1, 1, 1, 1, 1, 1],
     [1, 1, 1, 1, 1, 1, 1, 1],
     [1, 1, 1, 1, 1, 1, 1, 1],
     [1, 1, 1, 1, 1, 1, 1, 1],
     [1, 1, 1, 1, 1, 1, 1, 1],
     [1, 1, 1, 1, 1, 1, 1, 1],
     [1, 1, 1, 1, 1, 1, 1, 1],
     [1, 1, 1, 1, 1, 1, 1, 1],
     [1, 1, 1, 1, 1, 1, 1, 1],
     [1, 1, 1, 1, 1, 1, 1, 1],
     [1, 1, 1, 1, 1, 1, 1, 1],
     [1, 1, 1, 1, 1, 1, 1, 1],
     [1, 1, 1, 1, 1, 1, 1, 1],
     [1, 1, 1, 1, 1, 1, 1, 1],
     [1, 1, 1, 1, 1, 1, 1, 1],
     [1, 1, 1, 1, 1, 1, 1, 1],
     [1, 1, 1, 1, 1, 1, 1, 1],
     [1, 1, 1, 1, 1, 1, 1, 1],
     [1, 1, 1, 1, 1, 1, 1, 1],
     [1, 1, 1, 1, 1, 1, 1, 1],
     [1, 1, 1, 1, 1, 1, 1, 1],
     [1, 1, 1, 1, 1, 1, 1, 1],
     [1, 1, 1, 1, 1, 1, 1, 1],
     [1, 1, 1, 1, 1, 1, 1, 1],
     [1, 1, 1, 1, 1, 1, 1, 1],
     [1, 1, 1, 1, 1, 1, 1, 1],
     [1, 1, 1, 1, 1, 1, 1, 1],
     [1, 1, 1, 1, 1, 1, 1, 1],
     [1, 1, 1, 1, 1, 1, 1, 1],
     [1, 1, 1, 1, 1, 1, 1, 1],
     [1, 1, 1, 1, 1, 1, 1, 1],
     [1, 1, 1, 1, 1, 1, 1, 1],
     [1, 1, 1, 1, 1, 1, 1, 1],
     [1, 1, 1, 1, 1, 1, 1, 1],
     [1, 1, 1, 1, 1, 1, 1, 1],
     [1, 1, 1, 1, 1, 1, 1, 1],
     [1, 1, 1, 1, 1, 1, 1, 1],
     [1, 1, 1, 1, 1, 1, 1, 1],
     [1, 1, 1, 1, 1, 1, 1, 1],
     [1, 1, 1, 1, 1, 1, 1, 1],
     [1, 1, 1, 1, 1, 1, 1, 1],
     [1, 1, 1, 1, 1, 1, 1, 1],
     [1, 1, 1, 1, 1, 1, 1, 1],
     [1, 1, 1, 1, 1, 1, 1, 1],
     [1, 1, 1, 1, 1, 1, 1, 1],
     [1, 1, 1, 1, 1, 1, 1, 1],
     [1, 1, 1, 1, 1, 1, 1, 1],
     [1, 1, 1, 1, 1, 1, 1, 1],
     [1, 1, 1, 1, 1, 1, 1, 1],
     [1, 1, 1, 1, 1, 1, 1, 1],
     [1, 1, 1, 1, 1, 1, 1, 1],
     [1, 1, 1, 1, 1, 1, 1, 1],
     [1, 1, 1, 1, 1, 1, 1, 1],
     [1, 1, 1, 1, 1, 1, 1, 1],
     [1, 1, 1, 1, 1, 1, 1, 1],
     [1, 1, 1, 1, 1, 1, 1, 1],
     [1, 1, 1, 1, 1, 1, 1, 1],
     [1, 1, 1, 1, 1, 1, 1, 1],
     [1, 1, 1, 1, 1, 1, 1, 1],
     [1, 1, 1, 1, 1, 1, 1, 1],
     [1, 1, 1, 1, 1, 1, 1, 1],
     [1, 1, 1, 1, 1, 1, 1, 1],
     [1, 1, 1, 1, 1, 1, 1, 1],
     [1, 1, 1, 1, 1, 1, 1, 1],
     [1, 1, 1, 1, 1, 1, 1, 1],
     [1, 1, 1, 1, 1, 1, 1, 1],
     [1, 1, 1, 1, 1, 1, 1, 1],
     [1, 1, 1, 1, 1, 1, 1, 1],
     [1, 1, 1, 1, 1, 1, 1, 1],
     [1, 1, 1, 1, 1, 1, 1, 1]]"

definition sup_cond_spaces_30 :: "int list list" where
  "sup_cond_spaces_30 =
    [[1, 1, 2, 2, 2, 2, 2, 1],
     [2, 1, 1, 2, 1, 1, 1, 1],
     [2, 2, 2, 2, 2, 2, 2, 2],
     [2, 2, 0, 2, 2, 2, 2, 2],
     [2, 2, 2, 2, 2, 0, 2, 2],
     [2, 2, 2, 2, 1, 1, 1, 2],
     [2, 2, 2, 2, 2, 2, 2, 2],
     [2, 0, 2, 2, 2, 2, 2, 2],
     [2, 0, 2, 2, 2, 2, 2, 2],
     [2, 2, 2, 2, 2, 2, 2, 2],
     [2, 0, 2, 2, 2, 2, 2, 0],
     [2, 0, 2, 2, 2, 2, 2, 2],
     [2, 2, 2, 2, 2, 2, 2, 2],
     [2, 2, 2, 2, 2, 2, 2, 2],
     [2, 2, 2, 2, 2, 2, 2, 2],
     [2, 2, 2, 2, 2, 2, 2, 2],
     [2, 2, 0, 2, 2, 2, 2, 2],
     [2, 2, 2, 2, 2, 2, 2, 2],
     [2, 2, 2, 2, 2, 2, 2, 2],
     [2, 2, 2, 2, 2, 2, 2, 2],
     [2, 2, 2, 2, 2, 2, 2, 2],
     [2, 2, 2, 2, 2, 2, 2, 2],
     [2, 2, 2, 2, 2, 2, 2, 2],
     [2, 2, 2, 2, 2, 2, 2, 2],
     [2, 1, 1, 1, 2, 2, 2, 2],
     [1, 0, 2, 2, 2, 2, 2, 2],
     [2, 2, 1, 1, 1, 2, 2, 1],
     [0, 2, 2, 2, 2, 2, 2, 2],
     [2, 2, 2, 2, 1, 1, 1, 1],
     [0, 1, 1, 1, 2, 1, 0, 1],
     [1, 1, 2, 1, 0, 1, 1, 1],
     [2, 1, 0, 1, 1, 1, 2, 1],
     [0, 1, 1, 1, 2, 2, 2, 1],
     [0, 1, 1, 1, 2, 2, 2, 1],
     [0, 1, 1, 1, 2, 2, 2, 1],
     [0, 1, 1, 1, 2, 1, 0, 2],
     [2, 2, 2, 2, 2, 2, 2, 2],
     [2, 2, 2, 2, 2, 2, 2, 2],
     [2, 2, 2, 2, 2, 2, 2, 2],
     [2, 2, 2, 2, 2, 1, 1, 1],
     [2, 2, 2, 2, 1, 0, 2, 2],
     [2, 1, 1, 1, 2, 2, 2, 2],
     [1, 0, 2, 2, 2, 1, 1, 1],
     [2, 2, 2, 2, 1, 0, 2, 2],
     [2, 1, 1, 1, 2, 2, 2, 2],
     [2, 2, 1, 0, 2, 2, 2, 1],
     [1, 1, 2, 2, 2, 2, 2, 1],
     [0, 2, 2, 2, 2, 2, 2, 2],
     [2, 2, 2, 2, 2, 2, 2, 2],
     [2, 2, 2, 2, 2, 2, 2, 2],
     [2, 2, 2, 2, 2, 2, 2, 2],
     [2, 2, 2, 2, 2, 2, 2, 2],
     [2, 2, 2, 2, 2, 2, 2, 2],
     [2, 2, 2, 2, 2, 2, 2, 2],
     [2, 2, 2, 2, 2, 2, 2, 2],
     [2, 2, 2, 2, 2, 2, 2, 2],
     [2, 2, 2, 2, 2, 2, 2, 2],
     [2, 2, 2, 2, 2, 2, 2, 2],
     [2, 2, 2, 2, 2, 2, 2, 2],
     [2, 2, 2, 2, 2, 2, 2, 2],
     [2, 2, 2, 2, 2, 2, 2, 2],
     [2, 2, 2, 2, 2, 2, 2, 2],
     [2, 2, 2, 2, 2, 2, 2, 2],
     [2, 2, 2, 2, 2, 2, 2, 2],
     [2, 2, 2, 2, 2, 2, 2, 2],
     [2, 2, 2, 2, 2, 2, 2, 2],
     [2, 2, 2, 2, 2, 2, 2, 2],
     [2, 2, 2, 2, 2, 2, 2, 2],
     [2, 2, 2, 2, 2, 2, 2, 2],
     [2, 2, 2, 2, 2, 2, 2, 2],
     [2, 2, 2, 2, 2, 2, 2, 2],
     [2, 2, 2, 2, 2, 2, 2, 2],
     [2, 2, 2, 2, 2, 2, 2, 2],
     [2, 2, 2, 2, 2, 2, 2, 2],
     [2, 2, 2, 2, 2, 2, 2, 2],
     [2, 2, 2, 2, 2, 2, 2, 2],
     [2, 2, 2, 2, 2, 2, 2, 2],
     [2, 2, 2, 2, 2, 2, 2, 2],
     [2, 2, 2, 2, 2, 2, 2, 2],
     [2, 2, 2, 2, 2, 2, 2, 2],
     [2, 2, 2, 2, 2, 2, 2, 2],
     [2, 2, 2, 2, 2, 2, 2, 2],
     [2, 2, 2, 2, 2, 2, 2, 2],
     [2, 2, 2, 2, 2, 2, 2, 2],
     [2, 2, 2, 2, 2, 2, 2, 2],
     [2, 2, 2, 2, 2, 2, 2, 2],
     [2, 2, 2, 2, 2, 2, 2, 2],
     [2, 2, 2, 2, 2, 2, 2, 2],
     [2, 2, 2, 2, 2, 2, 2, 2],
     [2, 2, 2, 2, 2, 2, 2, 2],
     [2, 2, 2, 2, 2, 2, 2, 2],
     [2, 2, 2, 2, 2, 2, 2, 2],
     [2, 2, 2, 2, 2, 2, 2, 2],
     [2, 2, 2, 2, 2, 2, 2, 2],
     [2, 2, 2, 2, 2, 2, 2, 2],
     [2, 2, 2, 2, 2, 2, 2, 2],
     [2, 2, 2, 2, 2, 2, 2, 2],
     [2, 2, 2, 2, 2, 2, 2, 2],
     [2, 2, 2, 2, 2, 2, 2, 2],
     [2, 2, 2, 2, 2, 2, 2, 2],
     [2, 2, 2, 2, 2, 2, 2, 2],
     [2, 2, 2, 2, 2, 2, 2, 2],
     [2, 2, 2, 2, 2, 2, 2, 2],
     [2, 2, 2, 2, 2, 2, 2, 2],
     [2, 2, 2, 2, 2, 2, 2, 2],
     [2, 2, 2, 2, 2, 2, 2, 2],
     [2, 2, 1, 1, 1, 2, 1, 0],
     [2, 2, 2, 2, 2, 2, 2, 2],
     [2, 2, 2, 2, 2, 2, 2, 2],
     [2, 2, 2, 2, 2, 2, 2, 2],
     [2, 2, 2, 2, 2, 2, 2, 2],
     [2, 2, 2, 2, 2, 2, 2, 2],
     [2, 2, 2, 2, 2, 2, 2, 2],
     [2, 2, 2, 2, 2, 2, 2, 2],
     [2, 2, 2, 2, 2, 2, 2, 2],
     [2, 2, 2, 2, 2, 2, 2, 2],
     [2, 2, 2, 2, 2, 2, 2, 2],
     [2, 2, 2, 2, 2, 2, 2, 2],
     [2, 2, 2, 2, 2, 2, 2, 2],
     [2, 2, 2, 2, 2, 2, 2, 2],
     [2, 2, 2, 2, 2, 2, 2, 2],
     [2, 2, 2, 2, 2, 2, 2, 2],
     [2, 2, 2, 2, 2, 2, 2, 2],
     [2, 2, 2, 2, 2, 2, 2, 2],
     [2, 2, 2, 2, 2, 2, 2, 2],
     [2, 2, 2, 2, 2, 2, 2, 2],
     [2, 2, 2, 2, 2, 2, 2, 2],
     [2, 2, 2, 2, 2, 2, 2, 2],
     [2, 2, 2, 2, 2, 2, 2, 2],
     [2, 2, 2, 2, 2, 2, 2, 2],
     [2, 2, 2, 2, 2, 2, 2, 2],
     [2, 2, 2, 2, 2, 2, 2, 2],
     [2, 2, 2, 2, 2, 2, 2, 2],
     [2, 2, 2, 2, 2, 2, 2, 2],
     [2, 2, 2, 2, 2, 2, 2, 2],
     [2, 2, 2, 2, 2, 2, 2, 2],
     [2, 2, 2, 2, 2, 2, 2, 2],
     [2, 2, 2, 2, 2, 2, 2, 2],
     [2, 2, 2, 2, 2, 2, 2, 2],
     [2, 2, 2, 2, 2, 2, 2, 2],
     [2, 2, 2, 2, 2, 2, 2, 2],
     [2, 2, 2, 2, 2, 2, 2, 2],
     [2, 2, 2, 2, 2, 2, 2, 2],
     [2, 2, 2, 2, 2, 2, 2, 2],
     [2, 2, 2, 2, 2, 2, 2, 2],
     [2, 2, 2, 2, 2, 2, 2, 2],
     [2, 2, 2, 2, 2, 2, 2, 2],
     [2, 2, 2, 2, 2, 2, 2, 2],
     [2, 2, 2, 2, 2, 2, 2, 2],
     [2, 2, 2, 2, 2, 2, 2, 2]]"

definition sup_cond_spaces_31 :: "int list list" where
  "sup_cond_spaces_31 =
    [[2, 2, 2, 2, 2, 2, 2, 2],
     [2, 2, 2, 2, 2, 2, 2, 2],
     [2, 2, 2, 2, 2, 2, 2, 2],
     [2, 2, 2, 2, 2, 2, 2, 2],
     [2, 2, 2, 2, 2, 2, 2, 2],
     [2, 2, 2, 2, 2, 2, 2, 2],
     [2, 2, 2, 2, 2, 2, 2, 2],
     [2, 2, 2, 2, 2, 2, 2, 2],
     [2, 2, 2, 2, 2, 2, 2, 2],
     [2, 2, 2, 2, 2, 2, 2, 2],
     [2, 2, 2, 2, 2, 2, 2, 2],
     [2, 2, 2, 2, 2, 2, 2, 2],
     [2, 2, 2, 2, 2, 2, 2, 2],
     [2, 2, 2, 2, 2, 2, 2, 2],
     [2, 2, 2, 2, 2, 2, 2, 2],
     [2, 2, 2, 2, 2, 2, 2, 2],
     [2, 2, 2, 2, 2, 2, 2, 2],
     [2, 2, 2, 2, 2, 2, 2, 2],
     [2, 2, 2, 2, 2, 2, 2, 2],
     [2, 2, 2, 2, 2, 2, 2, 2],
     [2, 2, 2, 2, 2, 2, 2, 2],
     [2, 2, 2, 2, 2, 2, 2, 2],
     [2, 2, 2, 2, 2, 2, 2, 2],
     [2, 2, 2, 2, 2, 2, 2, 2],
     [2, 2, 2, 2, 2, 2, 2, 2],
     [2, 2, 2, 2, 2, 2, 2, 2],
     [2, 2, 2, 2, 2, 2, 2, 2],
     [2, 2, 2, 2, 2, 2, 2, 2],
     [2, 2, 2, 2, 2, 2, 2, 2],
     [2, 2, 2, 2, 2, 2, 2, 2],
     [2, 2, 2, 2, 2, 2, 2, 2],
     [2, 2, 2, 2, 2, 2, 2, 2],
     [2, 2, 2, 2, 2, 2, 2, 2],
     [2, 2, 2, 2, 2, 2, 2, 2],
     [2, 2, 2, 2, 2, 2, 2, 2],
     [2, 2, 2, 2, 2, 2, 2, 2],
     [2, 2, 2, 2, 2, 2, 2, 2],
     [2, 2, 2, 2, 2, 2, 2, 2],
     [2, 2, 2, 2, 2, 2, 2, 2],
     [2, 2, 2, 2, 2, 2, 2, 2],
     [2, 2, 2, 2, 2, 2, 2, 2],
     [2, 2, 2, 2, 2, 2, 2, 2],
     [2, 2, 2, 2, 2, 2, 2, 2],
     [2, 2, 2, 2, 2, 2, 2, 2],
     [2, 2, 2, 2, 2, 2, 2, 2],
     [2, 2, 2, 2, 2, 2, 2, 2],
     [2, 2, 2, 2, 2, 2, 2, 2],
     [2, 2, 2, 2, 2, 2, 2, 2],
     [2, 2, 2, 2, 2, 2, 2, 2],
     [2, 2, 2, 2, 2, 2, 2, 2],
     [2, 2, 2, 2, 2, 2, 2, 2],
     [2, 2, 2, 2, 2, 2, 2, 2],
     [2, 2, 2, 2, 2, 2, 2, 2],
     [2, 2, 2, 2, 2, 2, 2, 2],
     [2, 2, 2, 2, 2, 2, 2, 2],
     [2, 2, 2, 2, 2, 2, 2, 2],
     [2, 2, 2, 2, 2, 2, 2, 2],
     [2, 2, 2, 2, 2, 2, 2, 2],
     [2, 2, 2, 2, 2, 2, 2, 2],
     [2, 2, 2, 2, 2, 2, 2, 2],
     [2, 2, 2, 2, 2, 2, 2, 2],
     [2, 2, 2, 2, 2, 2, 2, 2],
     [2, 2, 2, 2, 2, 2, 2, 2],
     [2, 2, 2, 2, 2, 2, 2, 2],
     [2, 2, 2, 2, 2, 2, 2, 2],
     [2, 2, 2, 2, 2, 2, 2, 2],
     [2, 2, 2, 2, 2, 2, 2, 2],
     [2, 2, 2, 2, 2, 2, 2, 2],
     [2, 2, 2, 2, 2, 2, 2, 2],
     [2, 2, 2, 2, 2, 2, 2, 2],
     [2, 2, 2, 2, 2, 2, 2, 2],
     [2, 2, 2, 2, 2, 2, 2, 2],
     [2, 2, 2, 2, 2, 2, 2, 2],
     [2, 2, 2, 2, 2, 2, 2, 2],
     [2, 2, 2, 2, 2, 2, 2, 2],
     [2, 2, 2, 2, 2, 2, 2, 2],
     [2, 2, 2, 2, 2, 2, 2, 2],
     [2, 2, 2, 2, 2, 2, 2, 2],
     [2, 2, 2, 2, 2, 2, 2, 2],
     [2, 2, 2, 2, 2, 2, 2, 2],
     [2, 2, 2, 2, 2, 2, 2, 2],
     [2, 2, 2, 2, 2, 2, 2, 2],
     [2, 2, 2, 2, 2, 2, 2, 2],
     [2, 2, 2, 2, 2, 2, 2, 2],
     [2, 2, 2, 2, 2, 2, 2, 2],
     [2, 2, 2, 2, 2, 2, 2, 2],
     [2, 2, 2, 2, 2, 2, 2, 2],
     [2, 2, 2, 2, 2, 2, 2, 2],
     [2, 2, 2, 2, 2, 2, 2, 2],
     [2, 2, 2, 2, 2, 2, 2, 2],
     [2, 2, 2, 2, 2, 2, 2, 2],
     [2, 2, 2, 2, 2, 2, 2, 2],
     [2, 2, 2, 2, 2, 2, 2, 2],
     [2, 2, 2, 2, 2, 2, 2, 2],
     [2, 2, 2, 2, 2, 2, 2, 2],
     [2, 2, 2, 2, 2, 2, 2, 2],
     [2, 2, 2, 2, 2, 2, 2, 2],
     [2, 2, 2, 2, 2, 2, 2, 2],
     [2, 2, 2, 2, 2, 2, 2, 2],
     [2, 2, 2, 2, 2, 2, 2, 2],
     [2, 2, 2, 2, 2, 2, 2, 2],
     [2, 2, 2, 2, 2, 2, 2, 2],
     [2, 2, 2, 2, 2, 2, 2, 2],
     [2, 2, 2, 2, 2, 2, 2, 2],
     [2, 2, 2, 2, 2, 2, 2, 2],
     [2, 2, 2, 2, 2, 2, 2, 2],
     [2, 2, 2, 2, 2, 2, 2, 2],
     [2, 2, 2, 2, 2, 2, 2, 2],
     [2, 2, 2, 2, 2, 2, 2, 2],
     [2, 2, 2, 2, 2, 2, 2, 2],
     [2, 2, 2, 2, 2, 2, 2, 2],
     [2, 2, 2, 2, 2, 2, 2, 2],
     [2, 2, 2, 2, 2, 2, 2, 2],
     [2, 2, 2, 2, 2, 2, 2, 2],
     [2, 2, 2, 2, 2, 2, 2, 2],
     [2, 2, 2, 2, 2, 2, 2, 2],
     [2, 2, 2, 2, 2, 2, 2, 2],
     [2, 2, 2, 2, 2, 2, 2, 2],
     [2, 2, 2, 2, 2, 2, 2, 2],
     [2, 2, 2, 2, 2, 2, 2, 2],
     [2, 2, 2, 2, 2, 2, 2, 2],
     [2, 2, 2, 2, 2, 2, 2, 2],
     [2, 2, 2, 2, 2, 2, 2, 2],
     [2, 2, 2, 2, 2, 2, 2, 2],
     [2, 2, 2, 2, 2, 2, 2, 2],
     [2, 2, 2, 2, 2, 2, 2, 2],
     [2, 2, 2, 2, 2, 2, 2, 2],
     [2, 2, 2, 2, 2, 2, 2, 2],
     [2, 2, 2, 2, 2, 2, 2, 2],
     [2, 2, 2, 2, 2, 2, 2, 2],
     [2, 2, 2, 2, 2, 2, 2, 2],
     [2, 2, 2, 2, 2, 2, 2, 2],
     [2, 2, 2, 2, 2, 2, 2, 2],
     [2, 2, 2, 2, 2, 2, 2, 2],
     [2, 2, 2, 2, 2, 2, 2, 2],
     [2, 2, 2, 2, 2, 2, 2, 2],
     [2, 2, 2, 2, 2, 2, 2, 2],
     [2, 2, 2, 2, 2, 2, 2, 2],
     [2, 2, 2, 2, 2, 2, 2, 2],
     [2, 2, 2, 2, 2, 2, 2, 2],
     [2, 2, 2, 2, 2, 2, 2, 2],
     [2, 2, 2, 2, 2, 2, 2, 2],
     [2, 2, 2, 2, 2, 2, 2, 2],
     [2, 2, 2, 2, 2, 2, 2, 2],
     [2, 2, 2, 2, 2, 2, 2, 2],
     [2, 2, 2, 2, 2, 2, 2, 2],
     [2, 2, 2, 2, 2, 2, 2, 2],
     [2, 2, 2, 2, 2, 2, 2, 2],
     [2, 2, 2, 2, 2, 2, 2, 2],
     [2, 2, 2, 2, 2, 1, 1, 1]]"

definition sup_cond_spaces_32 :: "int list list" where
  "sup_cond_spaces_32 =
    [[2, 2, 2, 2, 2, 2, 2, 2],
     [2, 0, 2, 2, 2, 2, 2, 2],
     [2, 0, 2, 2, 2, 2, 2, 2],
     [2, 2, 2, 2, 2, 2, 2, 2],
     [2, 2, 2, 2, 2, 2, 2, 2],
     [2, 2, 2, 2, 2, 2, 2, 2],
     [2, 1, 1, 1, 2, 2, 2, 2],
     [2, 2, 2, 2, 2, 0, 2, 2],
     [2, 2, 2, 2, 2, 0, 2, 2],
     [2, 2, 2, 2, 2, 2, 2, 2],
     [2, 2, 2, 2, 2, 2, 2, 2],
     [2, 2, 2, 2, 2, 2, 2, 2],
     [2, 2, 2, 2, 2, 1, 1, 1],
     [2, 0, 2, 0, 2, 0, 0, 2],
     [2, 0, 2, 2, 0, 2, 0, 0],
     [0, 0, 0, 2, 2, 1, 2, 2],
     [1, 1, 1, 2, 0, 2, 0, 2],
     [0, 0, 2, 2, 0, 2, 2, 0],
     [2, 0, 2, 2, 0, 0, 2, 2],
     [1, 2, 2, 1, 1, 1, 1, 1],
     [1, 1, 1, 1, 1, 2, 1, 1],
     [2, 2, 2, 2, 2, 2, 1, 1],
     [1, 2, 2, 2, 2, 2, 2, 1],
     [1, 1, 1, 1, 1, 1, 1, 1],
     [1, 1, 1, 2, 1, 1, 2, 2],
     [2, 2, 2, 2, 1, 1, 1, 2],
     [2, 2, 2, 2, 2, 1, 1, 1],
     [1, 1, 2, 1, 0, 2, 0, 2],
     [0, 0, 2, 2, 0, 2, 2, 0],
     [2, 2, 2, 2, 0, 0, 0, 0],
     [0, 2, 1, 2, 1, 2, 2, 1],
     [1, 1, 2, 0, 2, 0, 2, 0],
     [0, 2, 2, 0, 2, 2, 0, 2],
     [0, 2, 0, 0, 0, 2, 2, 1],
     [2, 2, 1, 1, 1, 1, 1, 1],
     [1, 1, 1, 1, 2, 1, 2, 2],
     [2, 2, 2, 2, 1, 1, 1, 2],
     [2, 2, 2, 2, 2, 1, 1, 1],
     [1, 1, 1, 1, 1, 1, 1, 1],
     [1, 2, 1, 2, 2, 2, 2, 2],
     [2, 1, 1, 1, 2, 2, 2, 2],
     [2, 2, 1, 1, 1, 1, 1, 2],
     [2, 2, 2, 2, 2, 2, 2, 2],
     [0, 2, 2, 2, 2, 2, 2, 2],
     [2, 2, 2, 0, 2, 2, 2, 2],
     [2, 2, 1, 1, 1, 2, 0, 0],
     [2, 0, 2, 0, 0, 2, 2, 0],
     [2, 2, 0, 2, 0, 0, 0, 0],
     [0, 2, 2, 1, 2, 2, 1, 1],
     [1, 2, 0, 0, 2, 0, 2, 0],
     [0, 2, 2, 0, 2, 2, 0, 2],
     [0, 2, 2, 0, 0, 2, 2, 1],
     [2, 2, 1, 1, 1, 1, 1, 1],
     [1, 1, 1, 1, 2, 1, 1, 2],
     [2, 2, 2, 2, 2, 1, 1, 1],
     [2, 2, 2, 2, 2, 2, 1, 1],
     [1, 1, 1, 1, 1, 1, 1, 1],
     [1, 1, 2, 1, 1, 2, 2, 2],
     [2, 2, 2, 1, 1, 1, 2, 2],
     [2, 2, 2, 2, 1, 1, 1, 1],
     [1, 2, 1, 0, 0, 2, 0, 2],
     [0, 0, 2, 2, 0, 2, 2, 0],
     [2, 2, 2, 2, 0, 0, 0, 0],
     [0, 2, 1, 2, 1, 2, 2, 1],
     [1, 1, 2, 0, 0, 2, 0, 2],
     [0, 0, 2, 2, 0, 2, 2, 0],
     [2, 0, 2, 0, 0, 0, 2, 2],
     [1, 2, 2, 1, 1, 1, 1, 1],
     [1, 1, 1, 1, 1, 2, 1, 2],
     [2, 2, 2, 2, 2, 1, 1, 1],
     [2, 2, 2, 2, 2, 2, 1, 1],
     [1, 1, 1, 1, 1, 1, 1, 1],
     [1, 1, 2, 1, 2, 2, 2, 2],
     [2, 2, 1, 1, 1, 2, 2, 2],
     [2, 2, 2, 1, 1, 1, 1, 1],
     [2, 2, 2, 2, 2, 2, 2, 2],
     [2, 2, 0, 2, 2, 2, 2, 2],
     [2, 2, 0, 2, 2, 2, 2, 2],
     [1, 1, 1, 2, 2, 2, 2, 2],
     [2, 2, 2, 2, 2, 0, 2, 2],
     [2, 2, 2, 2, 2, 2, 2, 2],
     [0, 2, 2, 2, 2, 2, 2, 1],
     [1, 1, 2, 2, 2, 2, 2, 2],
     [2, 2, 2, 2, 0, 2, 2, 2],
     [2, 2, 2, 2, 0, 2, 2, 2],
     [2, 2, 2, 2, 2, 2, 2, 2],
     [2, 2, 2, 2, 0, 2, 2, 2],
     [2, 2, 0, 2, 0, 2, 2, 2],
     [2, 2, 2, 2, 2, 2, 2, 2],
     [2, 2, 2, 2, 2, 2, 2, 2],
     [2, 2, 2, 2, 2, 2, 2, 2],
     [2, 2, 2, 2, 2, 2, 2, 2],
     [2, 2, 2, 2, 2, 0, 2, 2],
     [2, 2, 2, 2, 2, 2, 2, 2],
     [2, 2, 2, 2, 2, 2, 2, 2],
     [2, 2, 2, 2, 2, 2, 2, 2],
     [2, 2, 2, 2, 2, 2, 2, 2],
     [2, 2, 2, 2, 2, 2, 2, 2],
     [2, 2, 2, 2, 2, 2, 2, 2],
     [2, 2, 2, 2, 2, 2, 2, 2],
     [2, 2, 2, 2, 1, 1, 1, 2],
     [2, 2, 2, 2, 1, 0, 2, 2],
     [2, 2, 2, 2, 2, 2, 1, 1],
     [1, 2, 2, 2, 1, 0, 2, 2],
     [2, 2, 2, 2, 2, 2, 2, 2],
     [2, 1, 1, 1, 2, 1, 0, 1],
     [1, 1, 2, 2, 1, 0, 1, 1],
     [1, 2, 2, 1, 0, 1, 1, 1],
     [2, 2, 1, 0, 1, 1, 1, 2],
     [2, 1, 0, 1, 1, 1, 2, 2],
     [2, 2, 1, 0, 1, 1, 1, 2],
     [2, 2, 2, 1, 0, 1, 1, 1],
     [2, 2, 2, 2, 1, 0, 1, 1],
     [1, 2, 2, 1, 0, 2, 2, 2],
     [2, 2, 2, 2, 2, 2, 2, 2],
     [2, 2, 2, 2, 2, 2, 2, 2],
     [2, 2, 2, 2, 2, 2, 2, 2],
     [2, 2, 2, 1, 1, 1, 2, 2],
     [2, 2, 2, 1, 0, 2, 2, 2],
     [1, 1, 1, 2, 2, 2, 2, 2],
     [1, 0, 2, 2, 2, 1, 1, 1],
     [2, 2, 2, 2, 2, 1, 0, 2],
     [2, 2, 1, 1, 1, 2, 2, 2],
     [2, 2, 2, 2, 1, 0, 2, 2],
     [2, 1, 1, 1, 2, 2, 2, 2],
     [2, 2, 1, 0, 2, 2, 2, 2],
     [2, 2, 2, 2, 2, 2, 2, 2],
     [2, 2, 2, 2, 2, 2, 2, 2],
     [2, 2, 2, 2, 2, 2, 2, 2],
     [2, 2, 2, 2, 2, 2, 2, 2],
     [2, 2, 2, 2, 2, 2, 2, 2],
     [2, 2, 2, 2, 2, 2, 2, 2],
     [2, 2, 2, 2, 2, 2, 2, 2],
     [2, 2, 2, 2, 2, 2, 2, 2],
     [2, 2, 2, 2, 2, 2, 2, 2],
     [2, 2, 2, 2, 2, 2, 2, 2],
     [2, 2, 2, 2, 2, 2, 2, 2],
     [2, 2, 2, 2, 2, 2, 2, 2],
     [2, 2, 2, 2, 2, 2, 2, 2],
     [2, 2, 2, 2, 2, 2, 2, 2],
     [2, 2, 2, 2, 2, 2, 2, 2],
     [2, 2, 2, 2, 2, 2, 2, 2],
     [2, 2, 2, 2, 2, 2, 2, 2],
     [2, 2, 2, 2, 2, 2, 2, 2],
     [2, 2, 2, 2, 2, 2, 2, 2],
     [2, 2, 2, 2, 2, 2, 2, 2],
     [2, 2, 2, 2, 2, 2, 2, 2],
     [2, 2, 2, 2, 2, 2, 2, 2],
     [2, 2, 2, 2, 2, 2, 2, 2],
     [2, 2, 2, 2, 2, 2, 2, 2]]"

definition sup_cond_spaces_33 :: "int list list" where
  "sup_cond_spaces_33 =
    [[2, 2, 2, 2, 2, 2, 2, 2],
     [2, 2, 2, 2, 2, 2, 2, 2],
     [2, 2, 2, 2, 2, 2, 2, 2],
     [2, 2, 2, 2, 2, 2, 2, 2],
     [2, 2, 2, 2, 2, 2, 2, 2],
     [2, 2, 2, 2, 2, 2, 2, 2],
     [2, 2, 2, 2, 2, 2, 2, 2],
     [2, 2, 2, 2, 2, 2, 2, 2],
     [2, 2, 2, 2, 2, 2, 2, 2],
     [2, 2, 2, 2, 2, 2, 2, 2],
     [2, 2, 2, 2, 2, 2, 2, 2],
     [2, 2, 2, 2, 2, 2, 2, 2],
     [2, 2, 2, 2, 2, 2, 2, 2],
     [2, 2, 2, 2, 2, 2, 2, 2],
     [2, 2, 2, 2, 2, 2, 2, 2],
     [2, 2, 2, 2, 2, 2, 2, 2],
     [2, 2, 2, 2, 2, 2, 2, 2],
     [2, 2, 2, 2, 2, 2, 2, 2],
     [2, 2, 2, 2, 2, 2, 2, 2],
     [2, 2, 2, 2, 2, 2, 2, 2],
     [2, 2, 2, 2, 2, 2, 2, 2],
     [2, 2, 2, 2, 2, 2, 2, 2],
     [2, 2, 2, 2, 2, 2, 2, 2],
     [2, 2, 2, 2, 2, 2, 2, 2],
     [2, 2, 2, 2, 2, 2, 2, 2],
     [2, 2, 2, 2, 2, 2, 2, 2],
     [2, 2, 2, 2, 2, 2, 2, 2],
     [2, 2, 2, 2, 2, 2, 2, 2],
     [2, 2, 2, 2, 2, 2, 2, 2],
     [2, 2, 2, 2, 2, 2, 2, 2],
     [2, 2, 2, 2, 2, 2, 2, 2],
     [2, 2, 2, 2, 2, 2, 2, 2],
     [2, 2, 2, 2, 2, 2, 2, 2],
     [2, 2, 2, 2, 2, 2, 2, 2],
     [2, 2, 2, 2, 2, 1, 1, 1],
     [2, 2, 1, 0, 2, 2, 2, 2],
     [2, 2, 2, 2, 2, 2, 2, 2],
     [2, 2, 2, 2, 2, 2, 2, 2],
     [2, 2, 2, 2, 2, 2, 2, 2],
     [2, 2, 2, 2, 2, 2, 2, 2],
     [2, 2, 2, 2, 2, 2, 2, 2],
     [2, 2, 2, 2, 2, 2, 2, 2],
     [2, 2, 2, 2, 2, 2, 2, 2],
     [2, 2, 2, 2, 2, 2, 2, 2],
     [2, 2, 2, 2, 2, 2, 2, 2],
     [2, 2, 2, 2, 2, 2, 2, 2],
     [2, 2, 2, 2, 2, 2, 2, 2],
     [2, 2, 2, 2, 2, 2, 2, 2],
     [2, 2, 2, 2, 2, 2, 2, 2],
     [2, 2, 2, 2, 2, 2, 2, 2],
     [2, 2, 2, 2, 2, 2, 2, 2],
     [2, 2, 2, 2, 2, 2, 2, 2],
     [2, 2, 2, 2, 2, 2, 2, 2],
     [2, 2, 2, 2, 2, 2, 2, 2],
     [2, 2, 2, 2, 2, 2, 2, 2],
     [2, 2, 2, 2, 2, 2, 2, 2],
     [2, 2, 2, 2, 2, 2, 2, 2],
     [2, 2, 2, 2, 2, 2, 2, 2],
     [2, 2, 2, 2, 2, 2, 2, 2],
     [2, 2, 2, 2, 2, 2, 2, 2],
     [2, 2, 2, 2, 2, 2, 2, 2],
     [2, 2, 2, 2, 2, 2, 2, 2],
     [2, 2, 2, 2, 2, 2, 2, 2],
     [2, 2, 2, 2, 2, 2, 2, 2],
     [2, 2, 2, 2, 2, 2, 2, 2],
     [2, 2, 2, 2, 2, 2, 2, 2],
     [2, 2, 2, 2, 2, 2, 2, 2],
     [2, 2, 2, 2, 2, 2, 2, 2],
     [2, 2, 2, 2, 2, 2, 2, 2],
     [2, 2, 2, 2, 2, 2, 2, 2],
     [2, 2, 2, 2, 2, 2, 2, 2],
     [2, 2, 2, 2, 2, 2, 2, 2],
     [2, 2, 2, 2, 2, 2, 2, 2],
     [2, 2, 2, 2, 2, 2, 2, 2],
     [2, 2, 2, 2, 2, 2, 2, 2],
     [2, 2, 2, 2, 2, 2, 2, 2],
     [2, 2, 2, 2, 2, 2, 2, 2],
     [2, 2, 2, 2, 2, 2, 2, 2],
     [2, 2, 2, 2, 2, 2, 2, 2],
     [2, 2, 2, 2, 2, 2, 2, 2],
     [2, 2, 2, 2, 2, 2, 2, 2],
     [2, 2, 2, 2, 2, 2, 2, 2],
     [2, 2, 2, 2, 2, 2, 2, 2],
     [2, 2, 2, 2, 2, 2, 2, 2],
     [2, 2, 2, 2, 2, 2, 2, 2],
     [2, 2, 2, 2, 2, 2, 2, 2],
     [2, 2, 2, 2, 2, 2, 2, 2],
     [2, 2, 2, 2, 2, 2, 2, 2],
     [2, 2, 2, 2, 2, 2, 2, 2],
     [2, 2, 2, 2, 2, 2, 2, 2],
     [2, 2, 2, 2, 2, 2, 2, 2],
     [2, 2, 2, 2, 2, 2, 2, 2],
     [2, 2, 2, 2, 2, 2, 2, 2],
     [2, 2, 2, 2, 2, 2, 2, 2],
     [2, 2, 2, 2, 2, 2, 2, 2],
     [2, 2, 2, 2, 2, 2, 2, 2],
     [2, 2, 2, 2, 2, 2, 2, 2],
     [2, 2, 2, 2, 2, 2, 2, 2],
     [2, 2, 2, 2, 2, 2, 2, 2],
     [2, 2, 2, 2, 2, 2, 2, 2],
     [2, 2, 2, 2, 2, 2, 2, 2],
     [2, 2, 2, 2, 2, 2, 2, 2],
     [2, 2, 2, 2, 2, 2, 2, 2],
     [2, 2, 2, 2, 2, 2, 2, 2],
     [2, 2, 2, 2, 2, 2, 2, 2],
     [2, 2, 2, 2, 2, 2, 2, 2],
     [2, 2, 2, 2, 2, 2, 2, 2],
     [2, 2, 2, 2, 2, 2, 2, 2],
     [2, 2, 2, 2, 2, 2, 2, 2],
     [2, 2, 2, 2, 2, 2, 2, 2],
     [2, 2, 2, 2, 2, 2, 2, 2],
     [2, 2, 2, 2, 2, 2, 2, 2],
     [2, 2, 2, 2, 2, 2, 2, 2],
     [2, 2, 2, 2, 2, 2, 2, 2],
     [2, 2, 2, 2, 2, 2, 2, 2],
     [2, 2, 2, 2, 2, 2, 2, 2],
     [2, 2, 2, 2, 2, 2, 2, 2],
     [2, 2, 2, 2, 2, 2, 2, 2],
     [2, 2, 2, 2, 2, 2, 2, 2],
     [2, 2, 2, 2, 2, 2, 2, 2],
     [2, 2, 2, 2, 2, 2, 2, 2],
     [2, 2, 2, 2, 2, 2, 2, 2],
     [2, 2, 2, 2, 2, 2, 2, 2],
     [2, 2, 2, 2, 2, 2, 2, 2],
     [2, 2, 2, 2, 2, 2, 2, 2],
     [2, 2, 2, 2, 2, 2, 2, 2],
     [2, 2, 2, 2, 2, 2, 2, 2],
     [2, 2, 2, 2, 2, 2, 2, 2],
     [2, 2, 2, 2, 2, 2, 2, 2],
     [2, 2, 2, 2, 2, 2, 2, 2],
     [2, 2, 2, 2, 2, 2, 2, 2],
     [2, 2, 2, 2, 2, 2, 2, 2],
     [2, 2, 2, 2, 2, 2, 2, 2],
     [2, 2, 2, 2, 2, 2, 2, 2],
     [2, 2, 2, 2, 2, 2, 2, 2],
     [2, 2, 2, 2, 2, 2, 2, 2],
     [2, 2, 2, 2, 2, 2, 2, 2],
     [2, 2, 2, 2, 2, 2, 2, 2],
     [2, 2, 2, 2, 2, 2, 2, 2],
     [2, 2, 2, 2, 2, 2, 2, 2],
     [2, 2, 2, 2, 2, 2, 2, 2],
     [2, 2, 2, 2, 2, 2, 2, 2],
     [2, 2, 2, 2, 2, 2, 2, 2],
     [2, 2, 2, 2, 2, 2, 2, 2],
     [2, 2, 2, 2, 2, 2, 2, 2],
     [2, 2, 2, 2, 2, 2, 2, 2],
     [2, 2, 2, 2, 2, 2, 2, 2],
     [2, 2, 2, 2, 2, 2, 2, 2],
     [2, 2, 2, 2, 2, 2, 2, 2],
     [2, 2, 2, 2, 2, 2, 2, 2]]"

definition sup_cond_spaces_34 :: "int list list" where
  "sup_cond_spaces_34 =
    [[2, 2, 2, 2, 2, 2, 2, 2],
     [2, 2, 2, 2, 2, 2, 2, 2],
     [2, 2, 2, 2, 2, 2, 2, 2],
     [2, 2, 2, 2, 2, 2, 2, 2],
     [2, 2, 2, 2, 2, 2, 2, 2],
     [2, 2, 2, 2, 2, 2, 2, 2],
     [2, 2, 2, 2, 2, 2, 2, 2],
     [2, 2, 2, 2, 2, 2, 2, 2],
     [2, 2, 2, 2, 2, 2, 2, 2],
     [2, 2, 2, 2, 2, 2, 2, 2],
     [2, 2, 2, 2, 2, 2, 2, 2],
     [2, 2, 2, 2, 2, 2, 2, 2],
     [2, 2, 2, 2, 2, 2, 2, 2],
     [2, 2, 2, 2, 2, 2, 2, 2],
     [2, 2, 2, 2, 2, 2, 2, 2],
     [2, 2, 2, 2, 2, 2, 2, 2],
     [2, 2, 2, 2, 2, 2, 2, 2],
     [2, 2, 2, 2, 2, 2, 2, 2],
     [2, 2, 2, 2, 2, 2, 2, 2],
     [2, 2, 2, 2, 2, 2, 2, 2],
     [2, 2, 2, 2, 2, 2, 2, 2],
     [2, 2, 2, 2, 2, 2, 2, 2],
     [2, 2, 2, 2, 2, 2, 2, 2],
     [2, 2, 2, 2, 2, 2, 2, 2],
     [2, 2, 2, 2, 2, 2, 2, 2],
     [2, 2, 2, 2, 2, 2, 2, 2],
     [2, 2, 2, 2, 2, 2, 2, 2],
     [2, 2, 2, 2, 2, 2, 2, 2],
     [2, 2, 2, 2, 2, 2, 2, 2],
     [2, 2, 2, 2, 2, 2, 2, 2],
     [2, 2, 2, 2, 2, 2, 2, 2],
     [2, 2, 2, 2, 2, 2, 2, 2],
     [2, 2, 2, 2, 2, 2, 2, 2],
     [2, 2, 2, 2, 2, 2, 2, 2],
     [2, 2, 2, 2, 2, 2, 2, 2],
     [2, 2, 2, 2, 2, 2, 2, 2],
     [2, 2, 2, 2, 2, 2, 2, 2],
     [2, 2, 2, 2, 2, 2, 2, 2],
     [2, 2, 2, 2, 2, 2, 2, 2],
     [2, 2, 2, 2, 2, 2, 2, 2],
     [2, 2, 2, 2, 2, 2, 2, 2],
     [2, 2, 2, 2, 2, 2, 2, 2],
     [2, 2, 2, 2, 2, 2, 2, 2],
     [2, 2, 2, 2, 2, 2, 2, 2],
     [2, 2, 2, 2, 2, 2, 2, 2],
     [2, 2, 2, 2, 2, 2, 2, 2],
     [2, 2, 2, 2, 2, 2, 2, 2],
     [2, 2, 2, 2, 2, 2, 2, 2],
     [2, 2, 2, 2, 2, 2, 2, 2],
     [2, 2, 2, 2, 2, 2, 2, 2],
     [2, 2, 2, 2, 2, 2, 2, 2],
     [2, 2, 2, 2, 2, 2, 2, 2],
     [2, 2, 2, 2, 2, 2, 2, 2],
     [2, 2, 2, 2, 2, 2, 2, 2],
     [2, 2, 2, 2, 2, 2, 2, 2],
     [2, 2, 2, 2, 2, 2, 2, 2],
     [2, 2, 2, 2, 2, 2, 2, 2],
     [2, 2, 2, 2, 2, 2, 2, 2],
     [2, 2, 2, 2, 2, 2, 2, 2],
     [2, 2, 2, 2, 2, 2, 2, 2],
     [2, 2, 2, 2, 2, 2, 2, 2],
     [2, 2, 2, 2, 2, 2, 2, 2],
     [2, 2, 2, 2, 2, 2, 2, 2],
     [2, 2, 2, 2, 2, 2, 2, 2],
     [2, 2, 2, 2, 2, 2, 2, 2],
     [2, 2, 2, 2, 2, 2, 2, 2],
     [2, 2, 2, 2, 2, 2, 2, 2],
     [2, 2, 2, 2, 2, 2, 2, 2],
     [2, 2, 2, 2, 2, 2, 2, 2],
     [2, 2, 2, 2, 2, 2, 2, 2],
     [2, 2, 2, 2, 2, 2, 2, 2],
     [2, 2, 2, 2, 2, 2, 2, 2],
     [2, 2, 2, 2, 2, 2, 2, 2],
     [2, 2, 2, 2, 2, 2, 2, 2],
     [2, 2, 2, 2, 2, 2, 2, 2],
     [2, 2, 2, 2, 2, 2, 2, 2],
     [2, 2, 2, 2, 2, 2, 2, 2],
     [2, 2, 2, 2, 2, 2, 2, 2],
     [2, 1, 1, 1, 2, 2, 2, 2],
     [2, 2, 2, 2, 2, 0, 2, 2],
     [2, 2, 2, 2, 2, 0, 2, 2],
     [2, 2, 2, 2, 2, 2, 2, 2],
     [2, 2, 2, 2, 2, 2, 2, 2],
     [2, 2, 2, 2, 2, 2, 2, 2],
     [2, 2, 2, 2, 2, 1, 1, 1],
     [2, 2, 2, 2, 2, 2, 2, 2],
     [2, 0, 2, 2, 2, 2, 2, 2],
     [2, 2, 2, 2, 0, 2, 2, 2],
     [2, 2, 2, 1, 1, 1, 2, 0],
     [0, 2, 0, 2, 0, 0, 2, 2],
     [0, 2, 2, 0, 2, 0, 0, 0],
     [0, 0, 2, 2, 1, 2, 2, 1],
     [1, 1, 2, 0, 0, 2, 0, 2],
     [0, 0, 2, 2, 0, 2, 2, 0],
     [2, 0, 2, 2, 0, 0, 2, 2],
     [1, 2, 2, 1, 1, 1, 1, 1],
     [1, 1, 1, 1, 1, 2, 1, 1],
     [2, 2, 2, 2, 2, 2, 1, 1],
     [1, 2, 2, 2, 2, 2, 2, 1],
     [1, 1, 1, 1, 1, 1, 1, 1],
     [1, 1, 1, 2, 1, 1, 2, 2],
     [2, 2, 2, 2, 1, 1, 1, 2],
     [2, 2, 2, 2, 2, 1, 1, 1],
     [1, 1, 2, 1, 0, 0, 2, 0],
     [2, 0, 0, 2, 2, 0, 2, 2],
     [0, 2, 2, 2, 2, 0, 0, 0],
     [0, 0, 2, 1, 2, 1, 2, 2],
     [1, 1, 1, 2, 0, 0, 2, 0],
     [2, 0, 0, 2, 2, 0, 2, 2],
     [0, 2, 0, 2, 0, 0, 0, 2],
     [2, 1, 2, 2, 1, 1, 1, 1],
     [1, 1, 1, 1, 1, 1, 2, 1],
     [2, 2, 2, 2, 2, 2, 1, 1],
     [1, 2, 2, 2, 2, 2, 2, 1],
     [1, 1, 1, 1, 1, 1, 1, 1],
     [1, 1, 1, 2, 1, 2, 2, 2],
     [2, 2, 2, 1, 1, 1, 2, 2],
     [2, 2, 2, 2, 1, 1, 1, 1],
     [1, 1, 1, 1, 1, 2, 2, 2],
     [2, 2, 1, 2, 2, 2, 1, 1],
     [2, 2, 2, 1, 1, 1, 1, 1],
     [1, 1, 1, 2, 2, 2, 2, 2],
     [1, 2, 2, 2, 1, 1, 2, 2],
     [2, 1, 1, 1, 1, 1, 1, 1],
     [1, 2, 2, 2, 2, 2, 1, 2],
     [2, 2, 1, 1, 2, 2, 2, 1],
     [2, 2, 2, 2, 2, 2, 2, 2],
     [2, 2, 0, 2, 2, 2, 2, 2],
     [2, 2, 0, 2, 0, 2, 2, 2],
     [2, 2, 2, 2, 2, 2, 2, 2],
     [2, 2, 2, 2, 0, 2, 2, 2],
     [2, 2, 0, 2, 0, 2, 2, 2],
     [2, 2, 2, 2, 2, 2, 2, 2],
     [2, 2, 2, 2, 2, 2, 2, 2],
     [2, 2, 2, 2, 2, 2, 2, 2],
     [2, 2, 2, 2, 2, 2, 2, 2],
     [2, 2, 2, 2, 2, 0, 2, 2],
     [2, 2, 2, 2, 2, 2, 2, 2],
     [2, 2, 2, 2, 2, 2, 2, 2],
     [2, 2, 2, 2, 2, 2, 2, 2],
     [2, 2, 2, 2, 2, 2, 2, 2],
     [2, 2, 2, 2, 2, 2, 2, 2],
     [2, 2, 2, 2, 2, 2, 2, 2],
     [2, 2, 2, 2, 2, 2, 2, 2],
     [2, 2, 2, 2, 1, 1, 1, 2],
     [2, 2, 2, 2, 0, 2, 2, 2],
     [2, 2, 2, 2, 2, 1, 1, 1],
     [2, 2, 2, 0, 2, 2, 2, 2],
     [2, 2, 2, 2, 2, 2, 2, 1],
     [1, 1, 2, 0, 1, 1, 1, 2]]"

definition sup_cond_spaces_35 :: "int list list" where
  "sup_cond_spaces_35 =
    [[0, 2, 0, 2, 0, 0, 2, 2],
     [2, 2, 0, 2, 0, 2, 2, 2],
     [2, 2, 2, 2, 0, 0, 2, 1],
     [2, 2, 2, 2, 2, 2, 2, 2],
     [1, 1, 1, 2, 0, 2, 0, 2],
     [0, 0, 2, 2, 2, 2, 0, 2],
     [0, 2, 2, 0, 2, 0, 0, 2],
     [1, 2, 2, 1, 1, 1, 1, 1],
     [1, 1, 1, 1, 1, 2, 1, 1],
     [2, 2, 2, 2, 2, 2, 1, 1],
     [1, 2, 2, 2, 2, 2, 2, 1],
     [1, 1, 1, 1, 1, 1, 1, 1],
     [1, 1, 1, 2, 1, 1, 2, 2],
     [2, 2, 2, 2, 1, 1, 1, 2],
     [2, 2, 2, 2, 2, 1, 1, 1],
     [1, 1, 2, 1, 0, 2, 0, 2],
     [0, 0, 2, 2, 2, 2, 0, 2],
     [2, 2, 2, 0, 0, 0, 0, 2],
     [2, 0, 2, 1, 2, 2, 1, 1],
     [1, 2, 0, 2, 0, 2, 0, 0],
     [2, 2, 2, 2, 0, 2, 0, 2],
     [0, 2, 0, 0, 2, 1, 2, 2],
     [1, 1, 1, 1, 1, 1, 1, 1],
     [1, 1, 2, 1, 2, 2, 2, 2],
     [2, 2, 1, 1, 1, 2, 2, 2],
     [2, 2, 2, 1, 1, 1, 1, 1],
     [1, 1, 1, 1, 1, 1, 1, 2],
     [1, 2, 2, 2, 2, 2, 2, 1],
     [1, 1, 2, 2, 2, 2, 2, 2],
     [1, 1, 0, 0, 0, 0, 0, 0],
     [0, 0, 0, 0, 0, 0, 2, 2],
     [0, 0, 2, 2, 2, 2, 2, 2],
     [0, 0, 0, 0, 2, 2, 2, 2],
     [2, 2, 0, 0, 0, 0, 0, 0],
     [0, 0, 0, 0, 0, 0, 0, 0],
     [2, 2, 0, 0, 2, 2, 2, 2],
     [2, 2, 0, 0, 0, 0, 2, 2],
     [2, 2, 2, 2, 0, 0, 0, 0],
     [0, 0, 0, 0, 0, 0, 0, 0],
     [0, 0, 2, 2, 0, 0, 2, 2],
     [2, 2, 2, 2, 0, 0, 0, 0],
     [2, 2, 2, 2, 2, 2, 0, 0],
     [0, 0, 0, 0, 0, 0, 0, 0],
     [0, 0, 0, 0, 2, 2, 0, 0],
     [2, 2, 2, 2, 2, 2, 0, 0],
     [0, 0, 2, 2, 2, 2, 2, 2],
     [0, 0, 0, 0, 0, 0, 0, 0],
     [0, 0, 0, 0, 0, 0, 0, 2],
     [0, 0, 0, 0, 0, 0, 0, 0],
     [0, 0, 0, 0, 0, 0, 0, 0],
     [0, 0, 0, 0, 2, 2, 0, 0],
     [2, 2, 2, 2, 2, 2, 0, 0],
     [0, 0, 2, 2, 2, 2, 2, 2],
     [0, 0, 0, 0, 0, 0, 0, 0],
     [0, 0, 0, 0, 0, 0, 2, 2],
     [0, 0, 2, 2, 2, 2, 2, 2],
     [0, 0, 0, 0, 2, 2, 2, 2],
     [2, 2, 0, 0, 0, 0, 0, 0],
     [0, 0, 0, 0, 0, 0, 0, 0],
     [2, 2, 0, 0, 2, 2, 2, 2],
     [2, 2, 0, 0, 0, 0, 2, 2],
     [2, 2, 2, 2, 0, 0, 0, 0],
     [0, 0, 0, 0, 0, 0, 0, 0],
     [0, 0, 2, 2, 0, 0, 2, 2],
     [2, 2, 2, 2, 0, 0, 0, 0],
     [2, 2, 2, 2, 2, 2, 0, 0],
     [0, 0, 0, 0, 0, 0, 0, 0],
     [0, 0, 0, 0, 0, 2, 0, 0],
     [0, 0, 0, 0, 0, 0, 0, 0],
     [0, 0, 0, 0, 0, 0, 0, 0],
     [0, 0, 2, 2, 0, 0, 2, 2],
     [2, 2, 2, 2, 0, 0, 0, 0],
     [2, 2, 2, 2, 2, 2, 0, 0],
     [0, 0, 0, 0, 0, 0, 0, 0],
     [0, 0, 0, 0, 2, 2, 0, 0],
     [2, 2, 2, 2, 2, 2, 0, 0],
     [0, 0, 2, 2, 2, 2, 2, 2],
     [0, 0, 0, 0, 0, 0, 0, 0],
     [0, 0, 0, 0, 0, 0, 2, 2],
     [0, 0, 2, 2, 2, 2, 2, 2],
     [0, 0, 0, 0, 2, 2, 2, 2],
     [2, 2, 0, 0, 0, 0, 0, 0],
     [0, 0, 0, 0, 0, 0, 0, 0],
     [2, 2, 0, 0, 2, 2, 2, 2],
     [2, 2, 0, 0, 0, 0, 2, 2],
     [2, 2, 2, 2, 0, 0, 0, 0],
     [0, 0, 0, 0, 0, 0, 0, 0],
     [0, 0, 0, 2, 0, 0, 0, 0],
     [0, 0, 0, 0, 0, 0, 0, 0],
     [0, 0, 0, 0, 0, 0, 0, 0],
     [2, 2, 0, 0, 2, 2, 2, 2],
     [2, 2, 0, 0, 0, 0, 2, 2],
     [2, 2, 2, 2, 0, 0, 0, 0],
     [0, 0, 0, 0, 0, 0, 0, 0],
     [0, 0, 2, 2, 0, 0, 2, 2],
     [2, 2, 2, 2, 0, 0, 0, 0],
     [2, 2, 2, 2, 2, 2, 0, 0],
     [0, 0, 0, 0, 0, 0, 0, 0],
     [0, 0, 0, 0, 2, 2, 0, 0],
     [2, 2, 2, 2, 2, 2, 0, 0],
     [0, 0, 2, 2, 2, 2, 2, 2],
     [0, 0, 0, 0, 0, 0, 0, 0],
     [0, 0, 0, 0, 0, 0, 2, 2],
     [0, 0, 2, 2, 2, 2, 2, 2],
     [0, 0, 0, 0, 2, 2, 2, 2],
     [2, 2, 0, 0, 0, 0, 0, 0],
     [0, 0, 0, 0, 0, 0, 0, 0],
     [0, 2, 0, 0, 0, 0, 0, 0],
     [0, 0, 0, 0, 0, 0, 0, 0],
     [0, 0, 0, 0, 0, 0, 2, 2],
     [0, 0, 2, 2, 2, 2, 2, 2],
     [0, 0, 0, 0, 2, 2, 2, 2],
     [2, 2, 0, 0, 0, 0, 0, 0],
     [0, 0, 0, 0, 0, 0, 0, 0],
     [2, 2, 0, 0, 2, 2, 2, 2],
     [2, 2, 0, 0, 0, 0, 2, 2],
     [2, 2, 2, 2, 0, 0, 0, 0],
     [0, 0, 0, 0, 0, 0, 0, 0],
     [0, 0, 2, 2, 0, 0, 2, 2],
     [2, 2, 2, 2, 0, 0, 0, 0],
     [2, 2, 2, 2, 2, 2, 0, 0],
     [0, 0, 0, 0, 0, 0, 0, 0],
     [0, 0, 0, 0, 2, 2, 0, 0],
     [2, 2, 2, 2, 2, 2, 0, 0],
     [0, 0, 2, 2, 2, 2, 2, 2],
     [0, 0, 0, 0, 0, 0, 0, 0],
     [0, 0, 0, 0, 0, 0, 0, 2],
     [0, 0, 0, 0, 0, 0, 0, 0],
     [0, 0, 0, 0, 0, 0, 0, 0],
     [0, 0, 0, 0, 2, 2, 0, 0],
     [2, 2, 2, 2, 2, 2, 0, 0],
     [0, 0, 2, 2, 2, 2, 2, 2],
     [0, 0, 0, 0, 0, 0, 0, 0],
     [0, 0, 0, 0, 0, 0, 2, 2],
     [0, 0, 2, 2, 2, 2, 2, 2],
     [0, 0, 0, 0, 2, 2, 2, 2],
     [2, 2, 0, 0, 0, 0, 0, 0],
     [0, 0, 0, 0, 0, 0, 0, 0],
     [2, 2, 0, 0, 2, 2, 2, 2],
     [2, 2, 0, 0, 0, 0, 2, 2],
     [2, 2, 2, 2, 0, 0, 0, 0],
     [0, 0, 0, 0, 0, 0, 0, 0],
     [0, 0, 2, 2, 0, 0, 2, 2],
     [2, 2, 2, 2, 0, 0, 0, 0],
     [2, 2, 2, 2, 2, 2, 0, 0],
     [0, 0, 0, 0, 0, 0, 0, 0],
     [0, 0, 0, 0, 0, 2, 0, 0],
     [0, 0, 0, 0, 0, 0, 0, 0],
     [0, 0, 0, 0, 0, 0, 0, 0],
     [0, 0, 2, 2, 2, 2, 2, 0]]"

definition sup_cond_spaces_36 :: "int list list" where
  "sup_cond_spaces_36 =
    [[0, 2, 2, 2, 2, 2, 2, 0],
     [0, 0, 0, 2, 2, 2, 2, 2],
     [2, 0, 0, 0, 0, 0, 0, 0],
     [0, 0, 0, 0, 0, 2, 0, 2],
     [2, 0, 0, 2, 2, 2, 2, 2],
     [2, 0, 0, 0, 0, 2, 2, 2],
     [2, 2, 2, 0, 0, 0, 0, 0],
     [0, 0, 0, 0, 0, 0, 0, 0],
     [0, 2, 2, 2, 2, 0, 0, 0],
     [0, 0, 0, 0, 0, 0, 0, 0],
     [0, 0, 0, 0, 0, 0, 0, 0],
     [2, 0, 0, 0, 0, 0, 0, 0],
     [0, 0, 0, 0, 0, 0, 0, 0],
     [0, 0, 0, 0, 0, 0, 0, 0],
     [2, 2, 2, 2, 0, 0, 0, 0],
     [0, 0, 0, 0, 0, 0, 0, 0],
     [0, 0, 0, 0, 0, 0, 0, 2],
     [0, 0, 0, 0, 0, 0, 0, 0],
     [0, 0, 0, 0, 0, 0, 0, 0],
     [0, 0, 0, 0, 0, 0, 0, 2],
     [2, 2, 2, 0, 0, 0, 0, 0],
     [0, 0, 0, 0, 0, 0, 0, 0],
     [0, 0, 0, 0, 0, 0, 0, 0],
     [0, 0, 0, 0, 0, 0, 2, 0],
     [0, 0, 1, 1, 1, 0, 0, 0],
     [0, 0, 0, 0, 0, 0, 0, 0],
     [0, 0, 0, 2, 0, 0, 0, 0],
     [0, 0, 0, 0, 0, 0, 0, 0],
     [0, 0, 0, 0, 0, 0, 0, 2],
     [0, 0, 0, 0, 0, 2, 0, 0],
     [0, 0, 0, 0, 0, 0, 0, 0],
     [0, 0, 0, 0, 0, 2, 0, 0],
     [0, 0, 0, 2, 0, 0, 0, 0],
     [0, 0, 0, 0, 0, 0, 0, 0],
     [0, 0, 0, 2, 2, 2, 0, 0],
     [0, 0, 0, 2, 0, 0, 0, 0],
     [0, 0, 0, 0, 0, 0, 0, 0],
     [0, 0, 0, 2, 0, 0, 0, 0],
     [0, 0, 2, 0, 0, 0, 0, 0],
     [0, 0, 0, 0, 0, 0, 0, 0],
     [2, 0, 2, 0, 0, 0, 0, 0],
     [0, 0, 0, 0, 0, 0, 0, 0],
     [0, 0, 0, 0, 0, 0, 2, 0],
     [2, 0, 0, 0, 0, 0, 0, 0],
     [0, 0, 0, 0, 0, 0, 0, 0],
     [0, 0, 0, 0, 2, 0, 2, 2],
     [2, 0, 0, 0, 0, 0, 0, 0],
     [0, 0, 0, 0, 0, 0, 0, 0],
     [0, 0, 0, 0, 2, 0, 2, 0],
     [0, 0, 0, 0, 0, 0, 0, 0],
     [0, 0, 0, 0, 0, 0, 0, 0],
     [0, 0, 0, 2, 0, 2, 0, 0],
     [0, 0, 0, 0, 0, 0, 0, 0],
     [0, 0, 0, 0, 0, 0, 0, 0],
     [0, 2, 0, 2, 0, 0, 0, 0],
     [0, 0, 0, 0, 0, 0, 0, 0],
     [0, 0, 0, 0, 0, 0, 0, 2],
     [0, 2, 2, 2, 0, 0, 0, 0],
     [0, 0, 0, 0, 0, 0, 0, 0],
     [0, 0, 0, 0, 0, 0, 0, 2],
     [0, 2, 0, 0, 0, 0, 0, 0],
     [0, 0, 0, 0, 0, 0, 0, 0],
     [0, 0, 0, 0, 0, 0, 0, 0],
     [2, 2, 0, 0, 2, 2, 2, 2],
     [2, 2, 0, 0, 0, 0, 2, 2],
     [2, 2, 2, 2, 0, 0, 0, 0],
     [0, 0, 0, 0, 0, 0, 0, 0],
     [0, 0, 2, 2, 0, 0, 2, 2],
     [2, 2, 2, 2, 0, 0, 0, 0],
     [2, 2, 2, 2, 2, 2, 0, 0],
     [0, 0, 0, 0, 0, 0, 0, 0],
     [0, 0, 0, 0, 0, 2, 0, 0],
     [0, 0, 0, 0, 0, 0, 0, 0],
     [0, 0, 0, 0, 0, 0, 0, 0],
     [0, 0, 2, 2, 0, 0, 2, 2],
     [2, 2, 2, 2, 0, 0, 0, 0],
     [2, 2, 2, 2, 2, 2, 0, 0],
     [0, 0, 0, 0, 0, 0, 0, 0],
     [0, 0, 0, 0, 2, 0, 0, 0],
     [2, 2, 2, 2, 2, 2, 0, 0],
     [2, 0, 2, 2, 2, 2, 2, 2],
     [0, 0, 0, 0, 0, 0, 0, 0],
     [0, 0, 0, 0, 0, 0, 2, 0],
     [0, 0, 2, 2, 2, 2, 2, 2],
     [0, 0, 2, 0, 2, 2, 2, 2],
     [2, 2, 0, 0, 0, 0, 0, 0],
     [0, 0, 0, 0, 0, 0, 0, 0],
     [2, 0, 0, 0, 2, 2, 2, 2],
     [2, 2, 0, 0, 2, 0, 2, 2],
     [2, 2, 2, 2, 0, 0, 0, 0],
     [0, 0, 0, 0, 0, 0, 0, 0],
     [2, 0, 2, 2, 0, 0, 2, 2],
     [2, 2, 2, 2, 0, 0, 0, 0],
     [2, 2, 2, 2, 2, 2, 0, 0],
     [0, 0, 0, 0, 0, 0, 0, 0],
     [0, 0, 2, 0, 2, 2, 0, 0],
     [2, 2, 2, 2, 2, 2, 0, 0],
     [0, 0, 2, 2, 2, 2, 2, 2],
     [0, 0, 0, 0, 0, 0, 0, 0],
     [0, 0, 0, 0, 2, 0, 2, 2],
     [0, 0, 2, 2, 2, 2, 2, 2],
     [0, 0, 0, 0, 2, 2, 2, 2],
     [2, 2, 0, 0, 0, 0, 0, 0],
     [0, 0, 0, 0, 0, 0, 2, 0],
     [2, 2, 2, 2, 0, 0, 2, 2],
     [2, 2, 2, 2, 0, 0, 0, 0],
     [2, 2, 2, 2, 2, 2, 0, 0],
     [0, 0, 0, 0, 0, 0, 0, 0],
     [0, 0, 2, 0, 2, 2, 2, 0],
     [0, 2, 2, 2, 2, 2, 2, 0],
     [0, 0, 0, 2, 2, 2, 2, 2],
     [2, 0, 0, 0, 0, 0, 0, 0],
     [0, 0, 0, 0, 0, 2, 0, 2],
     [2, 0, 0, 2, 2, 2, 2, 2],
     [2, 0, 0, 0, 0, 2, 2, 2],
     [2, 2, 2, 0, 0, 0, 0, 0],
     [0, 0, 0, 0, 0, 0, 0, 2],
     [0, 2, 2, 0, 0, 2, 2, 2],
     [2, 2, 2, 0, 0, 0, 0, 2],
     [2, 2, 2, 2, 2, 0, 0, 0],
     [0, 0, 0, 0, 0, 0, 0, 0],
     [0, 0, 0, 2, 0, 0, 0, 2],
     [2, 2, 2, 2, 2, 0, 0, 2],
     [0, 2, 2, 2, 2, 2, 2, 0],
     [0, 0, 0, 0, 0, 0, 0, 0],
     [0, 0, 0, 0, 0, 2, 2, 0],
     [0, 2, 2, 2, 2, 2, 2, 0],
     [0, 0, 0, 2, 2, 2, 2, 2],
     [2, 0, 0, 0, 0, 0, 0, 0],
     [0, 0, 0, 0, 0, 0, 0, 2],
     [2, 2, 2, 0, 0, 0, 2, 2],
     [2, 2, 2, 2, 0, 0, 2, 0],
     [2, 2, 2, 2, 2, 2, 0, 0],
     [0, 0, 0, 0, 0, 0, 0, 0],
     [0, 0, 2, 0, 2, 2, 0, 0],
     [2, 2, 2, 2, 2, 2, 0, 0],
     [2, 0, 2, 2, 2, 2, 2, 2],
     [0, 0, 0, 0, 0, 0, 0, 0],
     [0, 0, 0, 0, 0, 0, 2, 2],
     [0, 0, 2, 2, 2, 2, 2, 2],
     [0, 0, 2, 0, 2, 2, 2, 2],
     [2, 2, 0, 0, 0, 0, 0, 0],
     [0, 0, 0, 0, 0, 0, 0, 0],
     [2, 2, 0, 0, 2, 2, 2, 2],
     [2, 2, 0, 0, 2, 0, 2, 2],
     [2, 2, 2, 2, 0, 0, 0, 0],
     [0, 0, 0, 0, 0, 0, 0, 0],
     [0, 0, 0, 2, 0, 0, 0, 0],
     [2, 0, 0, 0, 0, 0, 0, 0],
     [0, 0, 0, 0, 0, 0, 0, 0]]"

definition sup_cond_spaces_37 :: "int list list" where
  "sup_cond_spaces_37 =
    [[2, 0, 0, 0, 2, 2, 2, 2],
     [2, 2, 0, 0, 0, 0, 2, 2],
     [2, 2, 2, 2, 0, 0, 0, 0],
     [0, 0, 0, 0, 0, 0, 0, 0],
     [2, 0, 2, 2, 0, 0, 2, 2],
     [2, 2, 2, 2, 0, 0, 2, 0],
     [2, 2, 2, 2, 2, 2, 0, 0],
     [0, 0, 0, 0, 0, 0, 0, 0],
     [0, 0, 2, 0, 2, 2, 0, 0],
     [2, 2, 2, 2, 2, 2, 0, 0],
     [2, 0, 2, 2, 2, 2, 2, 2],
     [0, 0, 0, 0, 0, 0, 0, 0],
     [0, 0, 0, 0, 2, 0, 2, 2],
     [0, 0, 2, 2, 2, 2, 2, 2],
     [0, 0, 2, 0, 2, 2, 2, 2],
     [2, 2, 0, 0, 0, 0, 0, 0],
     [0, 0, 0, 0, 0, 0, 2, 0],
     [2, 2, 2, 2, 0, 0, 2, 2],
     [2, 2, 2, 2, 0, 0, 2, 0],
     [2, 2, 2, 2, 2, 2, 0, 0],
     [0, 0, 0, 0, 0, 0, 0, 0],
     [0, 0, 2, 0, 2, 2, 2, 0],
     [0, 2, 2, 2, 2, 2, 2, 0],
     [0, 2, 0, 2, 2, 2, 2, 2],
     [2, 0, 0, 0, 0, 0, 0, 0],
     [0, 0, 0, 0, 0, 2, 0, 2],
     [2, 0, 0, 2, 2, 2, 2, 2],
     [2, 0, 0, 2, 0, 2, 2, 2],
     [2, 2, 2, 0, 0, 0, 0, 0],
     [0, 0, 0, 0, 0, 0, 0, 2],
     [0, 2, 2, 0, 0, 2, 2, 2],
     [2, 2, 2, 0, 0, 2, 0, 2],
     [2, 2, 2, 2, 2, 0, 0, 0],
     [0, 0, 0, 0, 0, 0, 0, 0],
     [0, 0, 0, 2, 2, 0, 0, 2],
     [2, 2, 2, 2, 2, 0, 0, 2],
     [0, 2, 2, 2, 2, 2, 2, 0],
     [0, 0, 0, 0, 0, 0, 0, 0],
     [0, 0, 0, 0, 0, 2, 2, 2],
     [2, 0, 0, 0, 2, 2, 2, 2],
     [2, 2, 0, 0, 2, 0, 2, 2],
     [2, 2, 2, 2, 0, 0, 0, 0],
     [0, 0, 0, 0, 0, 0, 0, 0],
     [2, 0, 2, 2, 0, 0, 2, 2],
     [2, 2, 2, 2, 0, 0, 2, 0],
     [2, 2, 2, 2, 2, 2, 0, 0],
     [0, 0, 0, 0, 0, 0, 0, 0],
     [0, 0, 0, 0, 2, 2, 0, 0],
     [2, 2, 2, 2, 2, 2, 0, 0],
     [2, 0, 2, 2, 2, 2, 2, 2],
     [0, 0, 0, 0, 0, 0, 0, 0],
     [0, 0, 0, 0, 0, 0, 2, 2],
     [0, 0, 2, 2, 2, 2, 2, 2],
     [0, 0, 2, 0, 2, 2, 2, 2],
     [2, 2, 0, 0, 0, 0, 0, 0],
     [0, 0, 0, 0, 0, 0, 0, 0],
     [0, 2, 0, 0, 0, 0, 2, 0],
     [0, 0, 0, 0, 0, 0, 0, 0],
     [0, 0, 0, 0, 0, 0, 2, 2],
     [2, 2, 0, 0, 0, 2, 2, 2],
     [2, 2, 2, 0, 0, 0, 0, 2],
     [2, 2, 2, 2, 2, 0, 0, 0],
     [0, 0, 0, 0, 0, 0, 0, 0],
     [0, 2, 0, 2, 2, 0, 0, 2],
     [2, 2, 2, 2, 2, 0, 0, 2],
     [0, 2, 2, 2, 2, 2, 2, 0],
     [0, 0, 0, 0, 0, 0, 0, 0],
     [0, 0, 0, 2, 0, 2, 2, 0],
     [0, 2, 2, 2, 2, 2, 2, 0],
     [0, 2, 0, 2, 2, 2, 2, 2],
     [2, 0, 0, 0, 0, 0, 0, 0],
     [0, 0, 0, 0, 0, 2, 0, 2],
     [2, 0, 0, 2, 2, 2, 2, 2],
     [2, 0, 0, 2, 0, 2, 2, 2],
     [2, 2, 2, 0, 0, 0, 0, 0],
     [0, 0, 0, 0, 0, 0, 0, 2],
     [0, 2, 2, 2, 2, 0, 0, 2],
     [2, 2, 2, 2, 2, 0, 0, 2],
     [0, 2, 2, 2, 2, 2, 2, 0],
     [0, 0, 0, 0, 0, 0, 0, 0],
     [0, 0, 0, 2, 0, 2, 2, 2],
     [0, 0, 2, 2, 2, 2, 2, 2],
     [0, 0, 2, 0, 2, 2, 2, 2],
     [2, 2, 0, 0, 0, 0, 0, 0],
     [0, 0, 0, 0, 0, 0, 2, 0],
     [2, 2, 0, 0, 2, 2, 2, 2],
     [2, 2, 0, 0, 2, 0, 2, 2],
     [2, 2, 2, 2, 0, 0, 0, 0],
     [0, 0, 0, 0, 0, 0, 0, 0],
     [2, 0, 2, 2, 0, 0, 2, 2],
     [2, 2, 2, 2, 0, 0, 2, 0],
     [2, 2, 2, 2, 2, 2, 0, 0],
     [0, 0, 0, 0, 0, 0, 0, 0],
     [0, 0, 0, 0, 2, 2, 0, 0],
     [2, 2, 2, 2, 2, 2, 0, 0],
     [2, 0, 2, 2, 2, 2, 2, 2],
     [0, 0, 0, 0, 0, 0, 0, 0],
     [0, 0, 0, 0, 0, 0, 2, 2],
     [2, 2, 0, 0, 0, 2, 2, 2],
     [2, 2, 2, 0, 0, 2, 0, 2],
     [2, 2, 2, 2, 2, 0, 0, 0],
     [0, 0, 0, 0, 0, 0, 0, 0],
     [0, 2, 0, 2, 2, 0, 0, 2],
     [2, 2, 2, 2, 2, 0, 0, 2],
     [0, 2, 2, 2, 2, 2, 2, 0],
     [0, 0, 0, 0, 0, 0, 0, 0],
     [0, 0, 0, 0, 0, 2, 2, 0],
     [0, 2, 2, 2, 2, 2, 2, 0],
     [0, 2, 0, 2, 2, 2, 2, 2],
     [2, 0, 0, 0, 0, 0, 0, 0],
     [0, 0, 0, 0, 0, 0, 0, 2],
     [2, 0, 0, 2, 2, 2, 2, 2],
     [2, 0, 0, 2, 0, 2, 2, 2],
     [2, 2, 2, 0, 0, 0, 0, 0],
     [0, 0, 0, 0, 0, 0, 0, 0],
     [0, 0, 2, 0, 0, 0, 0, 2],
     [0, 0, 0, 0, 0, 0, 0, 0],
     [0, 0, 0, 0, 0, 0, 0, 2],
     [2, 2, 2, 0, 0, 0, 2, 2],
     [2, 2, 2, 2, 0, 0, 0, 0],
     [2, 2, 2, 2, 2, 2, 0, 0],
     [0, 0, 0, 0, 0, 0, 0, 0],
     [0, 0, 2, 0, 2, 2, 0, 0],
     [2, 2, 2, 2, 2, 2, 0, 0],
     [2, 0, 2, 2, 2, 2, 2, 2],
     [0, 0, 0, 0, 0, 0, 0, 0],
     [0, 0, 0, 0, 2, 0, 2, 2],
     [0, 0, 2, 2, 2, 2, 2, 2],
     [0, 0, 2, 0, 2, 2, 2, 2],
     [2, 2, 0, 0, 0, 0, 0, 0],
     [0, 0, 0, 0, 0, 0, 2, 0],
     [2, 2, 0, 0, 2, 2, 2, 2],
     [2, 2, 0, 0, 2, 0, 2, 2],
     [2, 2, 2, 2, 0, 0, 0, 0],
     [0, 0, 0, 0, 0, 0, 0, 0],
     [2, 0, 2, 2, 2, 2, 0, 0],
     [2, 2, 2, 2, 2, 2, 0, 0],
     [2, 0, 2, 2, 2, 2, 2, 2],
     [0, 0, 0, 0, 0, 0, 0, 0],
     [0, 0, 0, 0, 2, 0, 2, 2],
     [2, 0, 0, 2, 2, 2, 2, 2],
     [2, 0, 0, 2, 0, 2, 2, 2],
     [2, 2, 2, 0, 0, 0, 0, 0],
     [0, 0, 0, 0, 0, 0, 0, 2],
     [0, 2, 2, 0, 0, 2, 2, 2],
     [2, 2, 2, 0, 0, 2, 0, 2],
     [2, 2, 2, 2, 2, 0, 0, 0],
     [0, 0, 0, 0, 0, 0, 0, 0],
     [0, 2, 0, 2, 2, 0, 0, 2],
     [2, 2, 2, 2, 2, 0, 0, 2]]"

definition sup_cond_spaces_38 :: "int list list" where
  "sup_cond_spaces_38 =
    [[0, 2, 2, 2, 2, 2, 2, 0],
     [0, 0, 0, 0, 0, 0, 0, 0],
     [0, 0, 0, 0, 0, 2, 2, 0],
     [0, 2, 2, 2, 2, 2, 2, 0],
     [0, 2, 0, 2, 2, 2, 2, 2],
     [2, 0, 0, 0, 0, 0, 0, 0],
     [0, 0, 0, 0, 0, 0, 0, 2],
     [2, 2, 2, 0, 0, 0, 2, 2],
     [2, 2, 2, 2, 0, 0, 2, 0],
     [2, 2, 2, 2, 2, 2, 0, 0],
     [0, 0, 0, 0, 0, 0, 0, 0],
     [0, 0, 2, 0, 2, 2, 0, 0],
     [2, 2, 2, 2, 2, 2, 0, 0],
     [2, 0, 2, 2, 2, 2, 2, 2],
     [0, 0, 0, 0, 0, 0, 0, 0],
     [0, 0, 0, 0, 0, 0, 2, 2],
     [0, 0, 2, 2, 2, 2, 2, 2],
     [0, 0, 2, 0, 2, 2, 2, 2],
     [2, 2, 0, 0, 0, 0, 0, 0],
     [0, 0, 0, 0, 0, 0, 0, 0],
     [2, 2, 0, 0, 2, 2, 2, 2],
     [2, 2, 0, 0, 2, 0, 2, 2],
     [2, 2, 2, 2, 0, 0, 0, 0],
     [0, 0, 0, 0, 0, 0, 0, 0],
     [0, 0, 0, 2, 0, 0, 0, 0],
     [2, 0, 0, 0, 0, 0, 0, 0],
     [0, 0, 0, 0, 0, 0, 0, 0],
     [2, 2, 2, 2, 0, 0, 0, 2],
     [2, 2, 2, 2, 2, 0, 0, 0],
     [0, 2, 2, 2, 2, 2, 2, 0],
     [0, 0, 0, 0, 0, 0, 0, 0],
     [0, 0, 0, 2, 0, 2, 2, 0],
     [0, 2, 2, 2, 2, 2, 2, 0],
     [0, 2, 0, 2, 2, 2, 2, 2],
     [2, 0, 0, 0, 0, 0, 0, 0],
     [0, 0, 0, 0, 0, 2, 0, 2],
     [2, 0, 0, 2, 2, 2, 2, 2],
     [2, 0, 0, 2, 0, 2, 2, 2],
     [2, 2, 2, 0, 0, 0, 0, 0],
     [0, 0, 0, 0, 0, 0, 0, 2],
     [0, 2, 2, 0, 0, 2, 2, 2],
     [2, 2, 2, 0, 0, 2, 0, 2],
     [2, 2, 2, 2, 2, 0, 0, 0],
     [0, 0, 0, 0, 0, 0, 0, 0],
     [0, 2, 0, 2, 2, 2, 2, 0],
     [0, 2, 2, 2, 2, 2, 2, 0],
     [0, 2, 0, 2, 2, 2, 2, 2],
     [2, 0, 0, 0, 0, 0, 0, 0],
     [0, 0, 0, 0, 0, 2, 0, 2],
     [2, 2, 0, 0, 2, 2, 2, 2],
     [2, 2, 0, 0, 2, 0, 2, 2],
     [2, 2, 2, 2, 0, 0, 0, 0],
     [0, 0, 0, 0, 0, 0, 0, 0],
     [2, 0, 2, 2, 0, 0, 2, 2],
     [2, 2, 2, 2, 0, 0, 2, 0],
     [2, 2, 2, 2, 2, 2, 0, 0],
     [0, 0, 0, 0, 0, 0, 0, 0],
     [0, 0, 2, 0, 2, 2, 0, 0],
     [2, 2, 2, 2, 2, 2, 0, 0],
     [2, 0, 2, 2, 2, 2, 2, 2],
     [0, 0, 0, 0, 0, 0, 0, 0],
     [0, 0, 0, 0, 0, 0, 2, 2],
     [0, 0, 2, 2, 2, 2, 2, 2],
     [0, 0, 2, 0, 2, 2, 2, 2],
     [2, 2, 0, 0, 0, 0, 0, 0],
     [0, 0, 0, 0, 0, 0, 0, 0],
     [2, 2, 2, 2, 0, 0, 0, 2],
     [2, 2, 2, 2, 2, 0, 0, 2],
     [0, 2, 2, 2, 2, 2, 2, 0],
     [0, 0, 0, 0, 0, 0, 0, 0],
     [0, 0, 0, 2, 0, 2, 2, 0],
     [0, 2, 2, 2, 2, 2, 2, 0],
     [0, 2, 0, 2, 2, 2, 2, 2],
     [2, 0, 0, 0, 0, 0, 0, 0],
     [0, 0, 0, 0, 0, 0, 0, 2],
     [2, 0, 0, 2, 2, 2, 2, 2],
     [2, 0, 0, 2, 0, 2, 2, 2],
     [2, 2, 2, 0, 0, 0, 0, 0],
     [0, 0, 0, 0, 0, 0, 0, 0],
     [0, 2, 2, 0, 0, 2, 2, 2],
     [2, 2, 2, 0, 0, 2, 0, 2],
     [2, 2, 2, 2, 2, 0, 0, 0],
     [0, 0, 0, 0, 0, 0, 0, 0],
     [0, 0, 0, 0, 2, 0, 0, 0],
     [0, 2, 0, 0, 0, 0, 0, 0],
     [0, 0, 0, 0, 0, 0, 0, 0],
     [0, 2, 2, 2, 2, 0, 0, 0],
     [2, 2, 2, 2, 2, 2, 0, 0],
     [0, 0, 2, 2, 2, 2, 2, 2],
     [0, 0, 0, 0, 0, 0, 0, 0],
     [0, 0, 0, 0, 2, 0, 2, 2],
     [0, 0, 2, 2, 2, 2, 2, 2],
     [0, 0, 2, 0, 2, 2, 2, 2],
     [2, 2, 0, 0, 0, 0, 0, 0],
     [0, 0, 0, 0, 0, 0, 2, 0],
     [2, 2, 0, 0, 2, 2, 2, 2],
     [2, 2, 0, 0, 2, 0, 2, 2],
     [2, 2, 2, 2, 0, 0, 0, 0],
     [0, 0, 0, 0, 0, 0, 0, 0],
     [2, 0, 2, 2, 0, 0, 2, 2],
     [2, 2, 2, 2, 0, 0, 2, 0],
     [2, 2, 2, 2, 2, 2, 0, 0],
     [0, 0, 0, 0, 0, 0, 0, 0],
     [0, 0, 2, 0, 2, 2, 2, 2],
     [0, 0, 2, 2, 2, 2, 2, 2],
     [0, 0, 2, 0, 2, 2, 2, 2],
     [2, 2, 0, 0, 0, 0, 0, 0],
     [0, 0, 0, 0, 0, 0, 2, 0],
     [2, 2, 2, 0, 0, 2, 2, 2],
     [2, 2, 2, 0, 0, 2, 0, 2],
     [2, 2, 2, 2, 2, 0, 0, 0],
     [0, 0, 0, 0, 0, 0, 0, 0],
     [0, 2, 0, 2, 2, 0, 0, 2],
     [2, 2, 2, 2, 2, 0, 0, 2],
     [0, 2, 2, 2, 2, 2, 2, 0],
     [0, 0, 0, 0, 0, 0, 0, 0],
     [0, 0, 0, 2, 0, 2, 2, 0],
     [0, 2, 2, 2, 2, 2, 2, 0],
     [0, 2, 0, 2, 2, 2, 2, 2],
     [2, 0, 0, 0, 0, 0, 0, 0],
     [0, 0, 0, 0, 0, 0, 0, 2],
     [2, 0, 0, 2, 2, 2, 2, 2],
     [2, 0, 0, 2, 0, 2, 2, 2],
     [2, 2, 2, 0, 0, 0, 0, 0],
     [0, 0, 0, 0, 0, 0, 0, 0],
     [0, 0, 2, 0, 0, 0, 0, 0],
     [0, 0, 0, 0, 0, 0, 0, 0],
     [0, 0, 0, 0, 0, 0, 0, 2],
     [2, 2, 2, 0, 0, 0, 2, 2],
     [2, 2, 2, 2, 0, 0, 2, 0],
     [2, 2, 2, 2, 2, 2, 0, 0],
     [0, 0, 0, 0, 0, 0, 0, 0],
     [0, 0, 2, 0, 2, 2, 0, 0],
     [2, 2, 2, 2, 2, 2, 0, 0],
     [2, 0, 2, 2, 2, 2, 2, 2],
     [0, 0, 0, 0, 0, 0, 0, 0],
     [0, 0, 0, 0, 0, 0, 2, 2],
     [0, 0, 2, 2, 2, 2, 2, 2],
     [0, 0, 2, 0, 2, 2, 2, 2],
     [2, 2, 0, 0, 0, 0, 0, 0],
     [0, 0, 0, 0, 0, 0, 0, 0],
     [2, 2, 0, 0, 2, 2, 2, 2],
     [2, 2, 0, 0, 2, 0, 2, 2],
     [2, 2, 2, 2, 0, 0, 0, 0],
     [0, 0, 0, 0, 0, 0, 0, 0],
     [0, 0, 0, 2, 0, 0, 0, 0],
     [2, 0, 0, 0, 0, 0, 0, 0],
     [0, 0, 0, 0, 0, 0, 0, 0],
     [2, 2, 2, 2, 0, 0, 0, 2],
     [2, 2, 2, 2, 2, 0, 0, 0]]"

definition sup_cond_spaces_39 :: "int list list" where
  "sup_cond_spaces_39 =
    [[0, 2, 2, 2, 2, 2, 2, 0],
     [0, 0, 0, 0, 0, 0, 0, 0],
     [0, 0, 0, 2, 0, 2, 2, 0],
     [0, 2, 2, 2, 2, 2, 2, 0],
     [0, 2, 0, 2, 2, 2, 2, 2],
     [2, 0, 0, 0, 0, 0, 0, 0],
     [0, 0, 0, 0, 0, 2, 0, 2],
     [2, 0, 0, 2, 2, 2, 2, 2],
     [2, 0, 0, 2, 0, 2, 2, 2],
     [2, 2, 2, 0, 0, 0, 0, 0],
     [0, 0, 0, 0, 0, 0, 0, 2],
     [0, 2, 2, 0, 0, 2, 2, 2],
     [2, 2, 2, 0, 0, 2, 0, 2],
     [2, 2, 2, 2, 2, 0, 0, 0],
     [0, 0, 0, 0, 0, 0, 0, 0],
     [0, 2, 0, 2, 2, 2, 2, 0],
     [0, 2, 2, 2, 2, 2, 2, 0],
     [0, 2, 0, 2, 2, 2, 2, 2],
     [2, 0, 0, 0, 0, 0, 0, 0],
     [0, 0, 0, 0, 0, 2, 0, 2],
     [2, 2, 0, 0, 2, 2, 2, 2],
     [2, 2, 0, 0, 2, 0, 2, 2],
     [2, 2, 2, 2, 0, 0, 0, 0],
     [0, 0, 0, 0, 0, 0, 0, 0],
     [2, 0, 2, 2, 0, 0, 2, 2],
     [2, 2, 2, 2, 0, 0, 2, 0],
     [2, 2, 2, 2, 2, 2, 0, 0],
     [0, 0, 0, 0, 0, 0, 0, 0],
     [0, 0, 2, 0, 2, 2, 0, 0],
     [2, 2, 2, 2, 2, 2, 0, 0],
     [2, 0, 2, 2, 2, 2, 2, 2],
     [0, 0, 0, 0, 0, 0, 0, 0],
     [0, 0, 0, 0, 0, 0, 2, 2],
     [0, 0, 2, 2, 2, 2, 2, 2],
     [0, 0, 2, 0, 2, 2, 2, 2],
     [2, 2, 0, 0, 1, 1, 1, 2],
     [0, 2, 0, 2, 0, 0, 2, 2],
     [2, 2, 0, 2, 0, 2, 2, 0],
     [2, 2, 2, 0, 0, 2, 1, 2],
     [2, 2, 2, 1, 1, 1, 2, 0],
     [2, 0, 2, 0, 0, 2, 2, 2],
     [2, 0, 2, 0, 2, 2, 0, 2],
     [0, 0, 2, 1, 2, 2, 1, 1],
     [1, 2, 1, 0, 2, 0, 2, 0],
     [0, 2, 2, 2, 2, 0, 2, 2],
     [2, 2, 0, 0, 0, 0, 2, 2],
     [0, 2, 2, 2, 2, 1, 1, 1],
     [2, 0, 2, 0, 2, 0, 0, 2],
     [2, 2, 2, 0, 2, 0, 2, 0],
     [2, 0, 0, 2, 2, 2, 2, 1],
     [1, 1, 2, 2, 2, 2, 2, 2],
     [2, 2, 2, 0, 2, 2, 2, 2],
     [2, 2, 2, 2, 2, 2, 2, 2],
     [2, 2, 2, 2, 2, 1, 1, 1],
     [2, 2, 2, 2, 2, 2, 2, 2],
     [2, 0, 2, 2, 2, 2, 2, 1],
     [1, 1, 2, 2, 2, 2, 2, 2],
     [2, 2, 2, 0, 2, 2, 2, 2],
     [2, 2, 2, 2, 2, 2, 2, 2],
     [2, 2, 2, 2, 2, 1, 1, 1],
     [2, 0, 2, 0, 2, 0, 0, 2],
     [2, 2, 2, 0, 2, 0, 2, 2],
     [0, 2, 2, 2, 2, 2, 0, 0],
     [2, 1, 2, 2, 2, 2, 2, 2],
     [1, 1, 1, 2, 0, 2, 0, 2],
     [0, 0, 2, 2, 2, 2, 0, 2],
     [0, 2, 2, 0, 2, 0, 0, 2],
     [1, 2, 2, 1, 1, 1, 2, 0],
     [2, 0, 2, 0, 0, 2, 2, 2],
     [2, 0, 2, 0, 2, 2, 0, 2],
     [2, 2, 0, 0, 2, 1, 2, 2],
     [2, 2, 1, 1, 1, 2, 0, 2],
     [0, 2, 0, 0, 2, 2, 2, 2],
     [0, 2, 0, 2, 2, 0, 2, 2],
     [2, 0, 0, 2, 1, 2, 2, 2],
     [2, 1, 1, 1, 2, 0, 2, 0],
     [2, 0, 0, 2, 2, 2, 2, 0],
     [2, 0, 2, 2, 0, 2, 0, 0],
     [2, 1, 2, 2, 1, 1, 1, 2],
     [1, 0, 2, 0, 2, 0, 0, 2],
     [2, 2, 2, 0, 2, 2, 2, 2],
     [0, 0, 0, 0, 2, 2, 0, 2],
     [2, 2, 2, 1, 1, 1, 2, 0],
     [2, 0, 2, 0, 0, 2, 2, 2],
     [2, 0, 2, 0, 2, 0, 2, 0],
     [0, 2, 2, 2, 2, 1, 1, 1],
     [2, 2, 2, 2, 2, 2, 2, 2],
     [2, 0, 2, 2, 2, 2, 2, 2],
     [2, 2, 2, 2, 2, 2, 2, 2],
     [2, 2, 2, 1, 1, 1, 2, 2],
     [2, 2, 2, 2, 2, 2, 2, 0],
     [2, 2, 2, 2, 2, 1, 1, 1],
     [2, 2, 2, 2, 2, 2, 2, 2],
     [2, 0, 2, 2, 2, 2, 2, 2],
     [2, 2, 2, 2, 2, 2, 2, 2],
     [2, 2, 2, 1, 1, 1, 2, 0],
     [2, 0, 2, 0, 0, 2, 2, 2],
     [2, 0, 2, 0, 2, 2, 0, 2],
     [2, 2, 0, 0, 2, 1, 2, 2],
     [2, 2, 1, 1, 1, 2, 0, 2],
     [0, 2, 0, 0, 2, 2, 2, 2],
     [0, 2, 0, 2, 2, 0, 2, 2],
     [0, 0, 2, 1, 2, 2, 2, 1],
     [1, 1, 2, 0, 2, 0, 2, 0],
     [0, 2, 2, 2, 2, 0, 2, 0],
     [2, 2, 0, 2, 2, 2, 0, 0],
     [2, 1, 2, 2, 2, 2, 1, 1],
     [1, 2, 0, 2, 0, 2, 0, 0],
     [2, 2, 2, 2, 0, 2, 0, 2],
     [2, 0, 2, 2, 2, 0, 0, 2],
     [1, 2, 2, 2, 2, 1, 1, 1],
     [2, 0, 2, 0, 2, 0, 0, 2],
     [2, 2, 2, 0, 2, 0, 2, 2],
     [0, 2, 2, 2, 0, 0, 2, 1],
     [2, 2, 2, 2, 1, 1, 1, 2],
     [0, 2, 0, 2, 0, 0, 2, 2],
     [2, 2, 0, 2, 0, 2, 2, 0],
     [2, 2, 2, 0, 0, 2, 1, 2],
     [2, 2, 2, 1, 1, 1, 2, 0],
     [2, 0, 2, 0, 0, 2, 2, 2],
     [2, 0, 2, 0, 2, 2, 0, 2],
     [2, 2, 0, 0, 2, 1, 2, 2],
     [2, 2, 1, 1, 1, 2, 0, 2],
     [0, 2, 0, 0, 2, 2, 2, 2],
     [0, 2, 0, 2, 2, 0, 2, 2],
     [2, 0, 0, 2, 1, 2, 2, 2],
     [2, 1, 1, 1, 2, 0, 2, 0],
     [2, 0, 0, 2, 2, 2, 2, 0],
     [2, 0, 2, 2, 0, 2, 0, 0],
     [2, 1, 2, 2, 1, 1, 1, 2],
     [1, 0, 2, 0, 2, 0, 0, 2],
     [2, 2, 2, 0, 2, 2, 2, 2],
     [0, 0, 0, 0, 2, 2, 2, 2],
     [2, 2, 2, 2, 0, 2, 2, 2],
     [2, 2, 2, 2, 2, 2, 2, 1],
     [1, 1, 2, 0, 2, 0, 2, 0],
     [0, 2, 2, 2, 2, 0, 2, 0],
     [2, 0, 2, 0, 0, 2, 2, 2],
     [2, 1, 1, 1, 2, 2, 2, 2],
     [2, 2, 2, 2, 2, 0, 2, 2],
     [2, 2, 2, 2, 2, 2, 2, 2],
     [2, 2, 2, 2, 2, 2, 2, 1],
     [1, 1, 2, 2, 2, 2, 2, 2],
     [2, 2, 2, 0, 2, 2, 2, 2],
     [2, 1, 1, 1, 2, 2, 2, 2],
     [2, 2, 2, 2, 2, 0, 2, 2],
     [2, 2, 2, 2, 2, 2, 2, 2],
     [2, 2, 2, 2, 2, 2, 2, 1],
     [1, 1, 2, 0, 2, 0, 2, 0],
     [0, 2, 2, 2, 2, 0, 2, 0]]"

definition sup_cond_spaces_40 :: "int list list" where
  "sup_cond_spaces_40 =
    [[2, 0, 2, 2, 2, 0, 0, 2],
     [2, 2, 2, 2, 2, 1, 1, 1],
     [2, 0, 2, 0, 2, 0, 0, 2],
     [2, 2, 2, 0, 2, 0, 2, 0],
     [2, 2, 2, 0, 0, 2, 2, 2],
     [2, 2, 2, 1, 1, 1, 2, 0],
     [2, 0, 2, 0, 0, 2, 2, 2],
     [2, 0, 2, 0, 2, 0, 2, 2],
     [2, 0, 0, 2, 2, 2, 2, 2],
     [2, 1, 1, 1, 2, 0, 2, 0],
     [2, 0, 0, 2, 2, 2, 2, 0],
     [2, 0, 2, 0, 2, 0, 0, 2],
     [2, 2, 2, 1, 1, 1, 2, 0],
     [2, 0, 2, 0, 0, 2, 2, 2],
     [2, 0, 2, 0, 2, 0, 2, 2],
     [2, 2, 2, 0, 0, 2, 2, 2],
     [2, 2, 2, 2, 2, 1, 1, 1],
     [2, 0, 2, 0, 2, 0, 0, 2],
     [2, 2, 2, 0, 2, 0, 2, 0],
     [2, 2, 2, 0, 0, 2, 2, 2],
     [2, 2, 2, 1, 1, 1, 2, 0],
     [2, 0, 2, 0, 0, 2, 2, 2],
     [2, 0, 2, 0, 2, 0, 2, 0],
     [0, 2, 2, 2, 2, 1, 1, 1],
     [2, 0, 2, 0, 2, 0, 0, 2],
     [2, 2, 2, 0, 2, 0, 2, 0],
     [2, 2, 2, 0, 0, 2, 2, 2],
     [2, 2, 2, 1, 1, 1, 2, 0],
     [2, 0, 2, 0, 0, 2, 2, 2],
     [2, 0, 2, 0, 2, 0, 2, 0],
     [0, 2, 2, 2, 2, 1, 1, 1],
     [2, 0, 2, 0, 2, 0, 0, 2],
     [2, 2, 2, 0, 2, 0, 2, 0],
     [2, 2, 2, 0, 0, 2, 2, 2],
     [2, 2, 2, 1, 1, 1, 2, 0],
     [2, 0, 2, 0, 0, 2, 2, 2],
     [2, 0, 2, 0, 2, 0, 2, 2],
     [2, 0, 0, 2, 2, 2, 2, 2],
     [2, 1, 1, 1, 2, 0, 2, 0],
     [2, 0, 0, 2, 2, 2, 2, 0],
     [2, 0, 2, 0, 2, 0, 0, 2],
     [2, 2, 2, 1, 1, 1, 2, 0],
     [2, 0, 2, 0, 0, 2, 2, 2],
     [2, 0, 2, 0, 2, 0, 2, 2],
     [2, 0, 0, 2, 2, 2, 2, 2],
     [2, 1, 1, 1, 2, 0, 2, 0],
     [2, 0, 0, 2, 2, 2, 2, 0],
     [2, 0, 2, 0, 2, 2, 2, 0],
     [0, 2, 2, 2, 2, 2, 2, 1],
     [1, 1, 2, 0, 2, 0, 2, 0],
     [0, 2, 2, 2, 2, 0, 2, 0],
     [2, 0, 2, 0, 0, 2, 2, 2],
     [2, 1, 1, 1, 2, 2, 0, 1],
     [1, 1, 2, 2, 0, 1, 1, 1],
     [2, 2, 0, 1, 1, 1, 2, 2],
     [0, 1, 1, 1, 2, 2, 2, 2],
     [0, 1, 1, 1, 2, 2, 2, 2],
     [0, 1, 1, 1, 2, 2, 2, 2],
     [0, 1, 1, 1, 2, 2, 0, 2],
     [2, 2, 2, 2, 2, 2, 2, 2],
     [2, 2, 2, 2, 2, 2, 2, 2],
     [2, 2, 2, 2, 2, 2, 2, 2],
     [2, 2, 2, 2, 2, 1, 1, 1],
     [2, 2, 2, 2, 2, 0, 2, 2],
     [2, 1, 1, 1, 2, 2, 2, 2],
     [2, 0, 2, 2, 2, 1, 1, 1],
     [2, 2, 2, 2, 2, 0, 2, 2],
     [2, 1, 1, 1, 2, 2, 2, 2],
     [2, 2, 2, 0, 2, 2, 2, 1],
     [1, 1, 2, 2, 2, 2, 2, 2],
     [0, 2, 2, 2, 2, 2, 2, 2],
     [2, 2, 2, 2, 2, 2, 2, 2],
     [2, 2, 2, 2, 2, 2, 2, 2],
     [2, 2, 2, 2, 2, 2, 2, 2],
     [2, 2, 2, 2, 2, 2, 2, 2],
     [2, 2, 2, 2, 2, 2, 2, 2],
     [2, 2, 2, 2, 2, 2, 2, 2],
     [2, 2, 2, 2, 2, 2, 2, 2],
     [2, 2, 2, 2, 2, 2, 2, 2],
     [2, 2, 2, 2, 2, 2, 2, 2],
     [2, 2, 2, 2, 2, 2, 2, 2],
     [2, 2, 2, 2, 2, 2, 2, 2],
     [2, 2, 2, 2, 2, 2, 2, 2],
     [2, 2, 2, 2, 2, 2, 2, 2],
     [2, 2, 2, 2, 2, 2, 2, 2],
     [2, 2, 2, 2, 2, 2, 2, 2],
     [2, 2, 2, 2, 2, 2, 2, 2],
     [2, 2, 2, 2, 2, 2, 2, 2],
     [2, 2, 2, 2, 2, 2, 2, 2],
     [2, 2, 2, 2, 2, 2, 2, 2],
     [2, 2, 2, 2, 2, 2, 2, 2],
     [2, 2, 2, 2, 2, 2, 2, 2],
     [2, 2, 2, 2, 2, 2, 2, 2],
     [2, 2, 2, 2, 2, 2, 2, 2],
     [2, 2, 2, 2, 2, 2, 2, 2],
     [2, 2, 2, 2, 2, 2, 2, 2],
     [2, 2, 2, 2, 2, 2, 2, 2],
     [2, 2, 2, 2, 2, 2, 2, 2],
     [2, 2, 2, 2, 2, 2, 2, 2],
     [2, 2, 2, 2, 2, 2, 2, 2],
     [2, 2, 2, 2, 2, 2, 2, 2],
     [2, 2, 2, 2, 2, 2, 2, 2],
     [2, 2, 2, 2, 2, 2, 2, 2],
     [2, 2, 2, 2, 2, 2, 2, 2],
     [2, 2, 2, 2, 2, 2, 2, 2],
     [2, 2, 2, 2, 2, 2, 2, 2],
     [2, 2, 2, 2, 2, 2, 2, 2],
     [2, 2, 2, 2, 2, 2, 2, 2],
     [2, 2, 2, 2, 2, 2, 2, 2],
     [2, 2, 2, 2, 2, 2, 2, 2],
     [2, 2, 2, 2, 2, 2, 2, 2],
     [2, 2, 2, 2, 2, 2, 2, 2],
     [2, 2, 2, 2, 2, 2, 2, 2],
     [2, 2, 2, 2, 2, 2, 2, 2],
     [2, 2, 2, 2, 2, 2, 2, 2],
     [2, 2, 2, 2, 2, 2, 2, 2],
     [2, 2, 2, 2, 2, 2, 2, 2],
     [2, 2, 2, 2, 2, 2, 2, 2],
     [2, 2, 2, 2, 2, 2, 2, 2],
     [2, 2, 2, 2, 2, 2, 2, 2],
     [2, 2, 2, 2, 2, 2, 2, 2],
     [2, 2, 2, 2, 2, 2, 2, 2],
     [2, 2, 2, 2, 2, 2, 2, 2],
     [2, 2, 2, 2, 2, 2, 2, 2],
     [2, 2, 2, 2, 2, 2, 2, 2],
     [2, 2, 2, 2, 2, 2, 2, 2],
     [2, 2, 2, 2, 2, 2, 2, 2],
     [2, 2, 2, 2, 2, 2, 2, 2],
     [2, 2, 2, 2, 2, 2, 2, 2],
     [2, 2, 1, 1, 1, 2, 2, 0],
     [2, 2, 2, 2, 2, 2, 2, 2],
     [2, 2, 2, 2, 2, 2, 2, 2],
     [2, 2, 2, 2, 2, 2, 2, 2],
     [2, 2, 2, 2, 2, 2, 2, 2],
     [2, 2, 2, 2, 2, 2, 2, 2],
     [2, 2, 2, 2, 2, 2, 2, 2],
     [2, 2, 2, 2, 2, 2, 2, 2],
     [2, 2, 2, 2, 2, 2, 2, 2],
     [2, 2, 2, 2, 2, 2, 2, 2],
     [2, 2, 2, 2, 2, 2, 2, 2],
     [2, 2, 2, 2, 2, 2, 2, 2],
     [2, 2, 2, 2, 2, 2, 2, 2],
     [2, 2, 2, 2, 2, 2, 2, 2],
     [2, 2, 2, 2, 2, 2, 2, 2],
     [2, 2, 2, 2, 2, 2, 2, 2],
     [2, 2, 2, 2, 2, 2, 2, 2],
     [2, 2, 2, 2, 2, 2, 2, 2],
     [2, 2, 2, 2, 2, 2, 2, 2],
     [2, 2, 2, 2, 2, 2, 2, 2],
     [2, 2, 2, 2, 2, 2, 2, 2]]"

definition sup_cond_spaces_41 :: "int list list" where
  "sup_cond_spaces_41 =
    [[2, 2, 2, 2, 2, 2, 2, 2],
     [2, 2, 2, 2, 2, 2, 2, 2],
     [2, 2, 2, 2, 2, 2, 2, 2],
     [2, 2, 2, 2, 2, 2, 2, 2],
     [2, 2, 2, 2, 2, 2, 2, 2],
     [2, 2, 2, 2, 2, 2, 2, 2],
     [2, 2, 2, 2, 2, 2, 2, 2],
     [2, 2, 2, 2, 2, 2, 2, 2],
     [2, 2, 2, 2, 2, 2, 2, 2],
     [2, 2, 2, 2, 2, 2, 2, 2],
     [2, 2, 2, 2, 2, 2, 2, 2],
     [2, 2, 2, 2, 2, 2, 2, 2],
     [2, 2, 2, 2, 2, 2, 2, 2],
     [2, 2, 2, 2, 2, 2, 2, 2],
     [2, 2, 2, 2, 2, 2, 2, 2],
     [2, 2, 2, 2, 2, 2, 2, 2],
     [2, 2, 2, 2, 2, 2, 2, 2],
     [2, 2, 2, 2, 2, 2, 2, 2],
     [2, 2, 2, 2, 2, 2, 2, 2],
     [2, 2, 2, 2, 2, 2, 2, 2],
     [2, 2, 2, 2, 2, 2, 2, 2],
     [2, 2, 2, 2, 2, 2, 2, 2],
     [2, 2, 2, 2, 2, 2, 2, 2],
     [2, 2, 2, 2, 2, 2, 2, 2],
     [2, 2, 2, 2, 2, 2, 2, 2],
     [2, 2, 2, 2, 2, 2, 2, 2],
     [2, 2, 2, 2, 2, 2, 2, 2],
     [2, 2, 2, 2, 2, 2, 2, 2],
     [2, 2, 2, 2, 2, 2, 2, 2],
     [2, 2, 2, 2, 2, 2, 2, 2],
     [2, 2, 2, 2, 2, 2, 2, 2],
     [2, 2, 2, 2, 2, 2, 2, 2],
     [2, 2, 2, 2, 2, 2, 2, 2],
     [2, 2, 2, 2, 2, 2, 2, 2],
     [2, 2, 2, 2, 2, 2, 2, 2],
     [2, 2, 2, 2, 2, 2, 2, 2],
     [2, 2, 2, 2, 2, 2, 2, 2],
     [2, 2, 2, 2, 2, 2, 2, 2],
     [2, 2, 2, 2, 2, 2, 2, 2],
     [2, 2, 2, 2, 2, 2, 2, 2],
     [2, 2, 2, 2, 2, 2, 2, 2],
     [2, 2, 2, 2, 2, 2, 2, 2],
     [2, 2, 2, 2, 2, 2, 2, 2],
     [2, 2, 2, 2, 2, 2, 2, 2],
     [2, 2, 2, 2, 2, 2, 2, 2],
     [2, 2, 2, 2, 2, 2, 2, 2],
     [2, 2, 2, 2, 2, 2, 2, 2],
     [2, 2, 2, 2, 2, 2, 2, 2],
     [2, 2, 2, 2, 2, 2, 2, 2],
     [2, 2, 2, 2, 2, 2, 2, 2],
     [2, 2, 2, 2, 2, 2, 2, 2],
     [2, 2, 2, 2, 2, 2, 2, 2],
     [2, 2, 2, 2, 2, 2, 2, 2],
     [2, 2, 2, 2, 2, 2, 2, 2],
     [2, 2, 2, 2, 2, 2, 2, 2],
     [2, 2, 2, 2, 2, 2, 2, 2],
     [2, 2, 2, 2, 2, 2, 2, 2],
     [2, 2, 2, 2, 2, 2, 2, 2],
     [2, 2, 2, 2, 2, 2, 2, 2],
     [2, 2, 2, 2, 2, 2, 2, 2],
     [2, 2, 2, 2, 2, 2, 2, 2],
     [2, 2, 2, 2, 2, 2, 2, 2],
     [2, 2, 2, 2, 2, 2, 2, 2],
     [2, 2, 2, 2, 2, 2, 2, 2],
     [2, 2, 2, 2, 2, 2, 2, 2],
     [2, 2, 2, 2, 2, 2, 2, 2],
     [2, 2, 2, 2, 2, 2, 2, 2],
     [2, 2, 2, 2, 2, 2, 2, 2],
     [2, 2, 2, 2, 2, 2, 2, 2],
     [2, 2, 2, 2, 2, 2, 2, 2],
     [2, 2, 2, 2, 2, 2, 2, 2],
     [2, 2, 2, 2, 2, 2, 2, 2],
     [2, 2, 2, 2, 2, 2, 2, 2],
     [2, 2, 2, 2, 2, 2, 2, 2],
     [2, 2, 2, 2, 2, 2, 2, 2],
     [2, 2, 2, 2, 2, 2, 2, 2],
     [2, 2, 2, 2, 2, 2, 2, 2],
     [2, 2, 2, 2, 2, 2, 2, 2],
     [2, 2, 2, 2, 2, 2, 2, 2],
     [2, 2, 2, 2, 2, 2, 2, 2],
     [2, 2, 2, 2, 2, 2, 2, 2],
     [2, 2, 2, 2, 2, 2, 2, 2],
     [2, 2, 2, 2, 2, 2, 2, 2],
     [2, 2, 2, 2, 2, 2, 2, 2],
     [2, 2, 2, 2, 2, 2, 2, 2],
     [2, 2, 2, 2, 2, 2, 2, 2],
     [2, 2, 2, 2, 2, 2, 2, 2],
     [2, 2, 2, 2, 2, 2, 2, 2],
     [2, 2, 2, 2, 2, 2, 2, 2],
     [2, 2, 2, 2, 2, 2, 2, 2],
     [2, 2, 2, 2, 2, 2, 2, 2],
     [2, 2, 2, 2, 2, 2, 2, 2],
     [2, 2, 2, 2, 2, 2, 2, 2],
     [2, 2, 2, 2, 2, 2, 2, 2],
     [2, 2, 2, 2, 2, 2, 2, 2],
     [2, 2, 2, 2, 2, 2, 2, 2],
     [2, 2, 2, 2, 2, 2, 2, 2],
     [2, 2, 2, 2, 2, 2, 2, 2],
     [2, 2, 2, 2, 2, 2, 2, 2],
     [2, 2, 2, 2, 2, 2, 2, 2],
     [2, 2, 2, 2, 2, 2, 2, 2],
     [2, 2, 2, 2, 2, 2, 2, 2],
     [2, 2, 2, 2, 2, 2, 2, 2],
     [2, 2, 2, 2, 2, 2, 2, 2],
     [2, 2, 2, 2, 2, 2, 2, 2],
     [2, 2, 2, 2, 2, 2, 2, 2],
     [2, 2, 2, 2, 2, 2, 2, 2],
     [2, 2, 2, 2, 2, 2, 2, 2],
     [2, 2, 2, 2, 2, 2, 2, 2],
     [2, 2, 2, 2, 2, 2, 2, 2],
     [2, 2, 2, 2, 2, 2, 2, 2],
     [2, 2, 2, 2, 2, 2, 2, 2],
     [2, 2, 2, 2, 2, 2, 2, 2],
     [2, 2, 2, 2, 2, 2, 2, 2],
     [2, 2, 2, 2, 2, 2, 2, 2],
     [2, 2, 2, 2, 2, 2, 2, 2],
     [2, 2, 2, 2, 2, 2, 2, 2],
     [2, 2, 2, 2, 2, 2, 2, 2],
     [2, 2, 2, 2, 2, 2, 2, 2],
     [2, 2, 2, 2, 2, 2, 2, 2],
     [2, 2, 2, 2, 2, 2, 2, 2],
     [2, 2, 2, 2, 2, 2, 2, 2],
     [2, 2, 2, 2, 2, 2, 2, 2],
     [2, 2, 2, 2, 2, 2, 2, 2],
     [2, 2, 2, 2, 2, 2, 2, 2],
     [2, 2, 2, 2, 2, 2, 2, 2],
     [2, 2, 2, 2, 2, 2, 2, 2],
     [2, 2, 2, 2, 2, 2, 2, 2],
     [2, 2, 2, 2, 2, 2, 2, 2],
     [2, 2, 2, 2, 2, 2, 2, 2],
     [2, 2, 2, 2, 2, 2, 2, 2],
     [2, 2, 2, 2, 2, 2, 2, 2],
     [2, 2, 2, 2, 2, 2, 2, 2],
     [2, 2, 2, 2, 2, 2, 2, 2],
     [2, 2, 2, 2, 2, 2, 2, 2],
     [2, 2, 2, 2, 2, 2, 2, 2],
     [2, 2, 2, 2, 2, 2, 2, 2],
     [2, 2, 2, 2, 2, 2, 2, 2],
     [2, 2, 2, 2, 2, 2, 2, 2],
     [2, 2, 2, 2, 2, 2, 2, 2],
     [2, 2, 2, 2, 2, 2, 2, 2],
     [2, 2, 2, 2, 2, 2, 2, 2],
     [2, 2, 2, 2, 2, 2, 2, 2],
     [2, 2, 2, 2, 2, 2, 2, 2],
     [2, 2, 2, 2, 2, 2, 2, 2],
     [2, 2, 2, 2, 2, 2, 2, 2],
     [2, 2, 2, 2, 2, 2, 2, 2],
     [2, 2, 2, 2, 2, 2, 2, 2],
     [2, 2, 2, 2, 2, 2, 2, 2],
     [2, 2, 2, 2, 2, 2, 2, 2]]"

definition sup_cond_spaces_42 :: "int list list" where
  "sup_cond_spaces_42 =
    [[2, 2, 2, 2, 2, 2, 2, 2],
     [2, 2, 2, 2, 2, 2, 2, 2],
     [2, 2, 2, 2, 2, 2, 2, 2],
     [2, 2, 2, 2, 2, 2, 2, 2],
     [2, 2, 2, 2, 2, 2, 2, 2],
     [2, 2, 2, 2, 2, 2, 2, 2],
     [2, 2, 2, 2, 2, 2, 2, 2],
     [2, 2, 2, 2, 2, 2, 2, 2],
     [2, 2, 2, 2, 2, 2, 2, 2],
     [2, 2, 2, 2, 2, 2, 2, 2],
     [2, 2, 2, 2, 2, 2, 2, 2],
     [2, 2, 2, 2, 2, 2, 2, 2],
     [2, 2, 2, 2, 2, 2, 2, 2],
     [2, 2, 2, 2, 2, 2, 2, 2],
     [2, 2, 2, 2, 2, 2, 2, 2],
     [2, 2, 2, 2, 2, 2, 2, 2],
     [2, 2, 2, 2, 2, 2, 2, 2],
     [2, 2, 2, 2, 2, 2, 2, 2],
     [2, 2, 2, 2, 2, 2, 2, 2],
     [2, 2, 2, 2, 2, 2, 2, 2],
     [2, 2, 2, 2, 2, 0, 2, 2],
     [2, 2, 2, 0, 2, 0, 2, 2],
     [2, 2, 2, 2, 2, 2, 2, 2],
     [2, 2, 2, 2, 2, 0, 2, 2],
     [2, 2, 2, 0, 2, 0, 2, 2],
     [2, 2, 2, 2, 2, 2, 2, 2],
     [2, 2, 2, 2, 2, 0, 2, 2],
     [2, 2, 2, 0, 2, 0, 2, 2],
     [2, 2, 2, 2, 2, 2, 2, 2],
     [2, 2, 2, 2, 2, 0, 2, 2],
     [2, 2, 2, 0, 2, 0, 2, 2],
     [2, 2, 2, 1, 1, 1, 2, 2],
     [2, 2, 2, 2, 2, 2, 2, 2],
     [0, 2, 2, 2, 2, 2, 2, 2],
     [0, 2, 2, 2, 2, 2, 2, 2],
     [2, 2, 2, 2, 2, 2, 2, 2],
     [0, 2, 2, 2, 2, 2, 0, 2],
     [0, 2, 2, 2, 2, 2, 1, 1],
     [1, 2, 2, 2, 2, 2, 2, 2],
     [2, 2, 2, 0, 2, 2, 2, 2],
     [2, 2, 2, 0, 2, 2, 2, 2],
     [2, 2, 2, 2, 2, 2, 2, 2],
     [2, 2, 0, 2, 2, 2, 2, 2],
     [2, 2, 2, 2, 2, 2, 2, 2],
     [2, 2, 2, 2, 2, 2, 2, 2],
     [0, 2, 2, 2, 2, 2, 2, 2],
     [2, 2, 2, 2, 2, 2, 2, 2],
     [2, 2, 2, 2, 0, 2, 2, 2],
     [2, 2, 2, 2, 2, 2, 2, 2],
     [2, 2, 2, 2, 2, 2, 2, 2],
     [0, 2, 2, 2, 2, 2, 2, 2],
     [2, 2, 2, 1, 1, 1, 2, 2],
     [2, 2, 2, 2, 2, 2, 2, 0],
     [2, 2, 2, 2, 2, 0, 2, 2],
     [2, 2, 2, 1, 1, 1, 2, 2],
     [2, 2, 2, 2, 2, 2, 2, 0],
     [2, 2, 2, 2, 2, 0, 2, 2],
     [2, 2, 2, 1, 1, 1, 2, 2],
     [2, 2, 2, 2, 2, 2, 2, 0],
     [2, 2, 2, 2, 2, 0, 2, 2],
     [2, 2, 2, 1, 1, 1, 2, 2],
     [2, 2, 2, 2, 2, 2, 2, 0],
     [2, 2, 2, 2, 2, 0, 2, 2],
     [2, 2, 2, 1, 1, 1, 2, 2],
     [2, 2, 2, 2, 2, 2, 2, 0],
     [2, 2, 2, 2, 2, 0, 2, 2],
     [2, 2, 2, 1, 1, 1, 2, 2],
     [2, 2, 2, 2, 2, 2, 2, 0],
     [2, 2, 2, 2, 2, 2, 2, 0],
     [2, 2, 2, 2, 2, 1, 1, 1],
     [2, 2, 2, 2, 2, 2, 2, 2],
     [2, 0, 2, 2, 2, 2, 2, 2],
     [2, 0, 2, 2, 2, 2, 2, 1],
     [1, 1, 2, 2, 2, 2, 2, 2],
     [2, 2, 2, 0, 2, 2, 2, 2],
     [2, 2, 2, 0, 2, 2, 2, 2],
     [2, 1, 1, 1, 2, 2, 2, 2],
     [2, 2, 2, 2, 2, 0, 2, 2],
     [2, 2, 2, 2, 0, 2, 2, 2],
     [2, 2, 1, 1, 1, 2, 0, 0],
     [2, 0, 2, 0, 0, 2, 2, 0],
     [2, 2, 0, 2, 0, 0, 0, 0],
     [0, 2, 2, 2, 2, 2, 2, 2],
     [0, 0, 2, 1, 2, 2, 2, 2],
     [2, 2, 2, 2, 1, 1, 1, 2],
     [0, 0, 2, 0, 2, 0, 0, 2],
     [2, 0, 2, 2, 0, 2, 0, 2],
     [2, 0, 0, 2, 0, 0, 2, 1],
     [2, 2, 1, 1, 1, 1, 1, 1],
     [1, 1, 1, 1, 2, 1, 1, 2],
     [2, 2, 2, 2, 2, 1, 1, 1],
     [2, 2, 2, 2, 2, 2, 1, 1],
     [1, 1, 1, 1, 1, 1, 1, 1],
     [1, 1, 2, 1, 1, 2, 2, 2],
     [2, 2, 2, 1, 1, 1, 2, 2],
     [2, 2, 2, 2, 1, 1, 1, 1],
     [1, 2, 1, 0, 0, 2, 0, 2],
     [0, 0, 2, 2, 0, 2, 2, 0],
     [2, 2, 2, 2, 0, 0, 0, 0],
     [0, 2, 2, 0, 2, 1, 2, 2],
     [1, 1, 1, 2, 0, 0, 2, 0],
     [2, 0, 0, 2, 2, 0, 2, 2],
     [0, 2, 0, 2, 0, 0, 0, 2],
     [0, 0, 2, 1, 2, 2, 1, 1],
     [1, 1, 1, 1, 1, 1, 1, 1],
     [2, 1, 2, 2, 2, 2, 2, 2],
     [1, 1, 1, 2, 2, 2, 2, 2],
     [2, 1, 1, 1, 1, 1, 1, 1],
     [1, 1, 1, 1, 1, 2, 1, 2],
     [2, 2, 2, 2, 2, 1, 1, 1],
     [2, 2, 2, 2, 2, 2, 1, 1],
     [1, 1, 1, 2, 0, 0, 2, 0],
     [2, 0, 0, 2, 2, 0, 2, 2],
     [0, 2, 0, 2, 2, 0, 0, 2],
     [2, 2, 0, 0, 2, 1, 2, 2],
     [2, 2, 1, 1, 1, 2, 0, 0],
     [2, 0, 2, 0, 0, 2, 2, 0],
     [2, 2, 0, 2, 0, 2, 2, 0],
     [0, 2, 0, 0, 2, 1, 2, 2],
     [1, 1, 1, 2, 1, 0, 0, 2],
     [0, 2, 0, 0, 2, 2, 0, 2],
     [2, 0, 2, 2, 2, 2, 0, 0],
     [0, 0, 0, 2, 2, 0, 2, 2],
     [2, 2, 1, 1, 1, 2, 0, 0],
     [2, 0, 2, 0, 0, 2, 2, 0],
     [2, 2, 0, 2, 0, 2, 0, 0],
     [0, 2, 0, 0, 2, 2, 2, 2],
     [1, 1, 1, 2, 2, 2, 2, 2],
     [2, 2, 2, 2, 0, 2, 2, 2],
     [2, 2, 2, 2, 2, 2, 2, 2],
     [2, 2, 2, 2, 2, 2, 1, 1],
     [1, 2, 2, 2, 2, 2, 2, 2],
     [2, 2, 0, 2, 2, 2, 2, 2],
     [2, 2, 2, 2, 2, 2, 2, 2],
     [2, 2, 2, 2, 1, 1, 1, 2],
     [0, 0, 2, 0, 2, 0, 0, 2],
     [2, 0, 2, 2, 0, 2, 0, 2],
     [2, 0, 0, 2, 2, 2, 2, 2],
     [0, 0, 2, 1, 2, 2, 2, 2],
     [2, 2, 1, 1, 1, 2, 0, 0],
     [2, 0, 2, 0, 0, 2, 2, 0],
     [2, 2, 0, 2, 0, 2, 2, 0],
     [0, 2, 0, 0, 2, 1, 2, 2],
     [1, 1, 1, 2, 0, 0, 2, 0],
     [2, 0, 0, 2, 2, 0, 2, 2],
     [0, 2, 0, 2, 2, 0, 0, 2],
     [2, 2, 0, 0, 2, 1, 2, 2],
     [2, 2, 1, 1, 1, 2, 0, 0],
     [2, 0, 2, 0, 0, 2, 2, 0],
     [2, 2, 0, 2, 0, 2, 2, 0]]"

definition sup_cond_spaces_43 :: "int list list" where
  "sup_cond_spaces_43 =
    [[0, 2, 2, 2, 0, 0, 2, 1],
     [2, 2, 2, 2, 1, 1, 1, 2],
     [0, 0, 2, 0, 2, 0, 0, 2],
     [2, 0, 2, 2, 0, 2, 0, 2],
     [2, 0, 0, 2, 0, 0, 2, 1],
     [2, 2, 1, 1, 1, 2, 1, 0],
     [0, 2, 0, 2, 0, 0, 2, 2],
     [0, 2, 2, 0, 2, 2, 2, 2],
     [0, 0, 0, 0, 0, 2, 2, 0],
     [2, 2, 2, 2, 1, 1, 1, 2],
     [0, 0, 2, 0, 2, 0, 0, 2],
     [2, 0, 2, 2, 0, 2, 0, 2],
     [0, 0, 0, 2, 0, 0, 2, 2],
     [2, 2, 1, 1, 1, 2, 2, 2],
     [2, 2, 2, 2, 2, 2, 0, 2],
     [2, 2, 2, 2, 2, 2, 2, 2],
     [2, 2, 2, 2, 2, 2, 2, 2],
     [1, 1, 1, 2, 2, 2, 2, 2],
     [2, 2, 2, 2, 0, 2, 2, 2],
     [2, 2, 2, 2, 2, 2, 2, 2],
     [2, 2, 2, 2, 2, 2, 1, 1],
     [1, 2, 0, 0, 2, 0, 2, 0],
     [0, 2, 2, 0, 2, 2, 0, 2],
     [0, 2, 2, 0, 0, 2, 2, 2],
     [0, 0, 2, 1, 2, 2, 2, 2],
     [1, 1, 1, 2, 0, 0, 2, 0],
     [2, 0, 0, 2, 2, 0, 2, 2],
     [0, 2, 0, 2, 2, 0, 0, 2],
     [2, 0, 0, 2, 1, 2, 2, 2],
     [1, 1, 1, 2, 0, 0, 2, 0],
     [2, 0, 0, 2, 2, 0, 2, 2],
     [0, 2, 0, 2, 2, 0, 0, 2],
     [2, 2, 0, 0, 2, 1, 2, 2],
     [2, 2, 1, 1, 1, 2, 0, 0],
     [2, 0, 2, 0, 0, 2, 2, 0],
     [2, 2, 0, 2, 0, 2, 2, 0],
     [0, 2, 2, 2, 0, 0, 2, 1],
     [2, 2, 2, 2, 1, 1, 1, 2],
     [0, 0, 2, 0, 2, 0, 0, 2],
     [2, 0, 2, 2, 0, 2, 0, 2],
     [2, 0, 0, 2, 2, 2, 0, 0],
     [2, 1, 2, 2, 2, 2, 1, 1],
     [1, 2, 0, 0, 2, 0, 2, 0],
     [0, 2, 2, 0, 2, 2, 0, 2],
     [0, 2, 2, 0, 0, 2, 2, 2],
     [0, 0, 2, 1, 2, 2, 2, 2],
     [1, 1, 1, 2, 0, 0, 2, 0],
     [2, 0, 0, 2, 2, 0, 2, 2],
     [0, 2, 0, 2, 2, 0, 0, 2],
     [2, 2, 0, 0, 2, 1, 2, 2],
     [2, 2, 1, 1, 1, 2, 0, 0],
     [2, 0, 2, 0, 0, 2, 2, 0],
     [2, 2, 0, 2, 0, 2, 2, 0],
     [0, 2, 2, 2, 0, 0, 2, 1],
     [2, 2, 2, 2, 1, 1, 1, 2],
     [0, 0, 2, 0, 2, 0, 0, 2],
     [2, 0, 2, 2, 0, 2, 0, 2],
     [2, 0, 0, 2, 0, 0, 2, 1],
     [2, 2, 1, 1, 1, 2, 1, 0],
     [0, 2, 0, 2, 0, 0, 2, 2],
     [0, 2, 2, 0, 2, 2, 2, 2],
     [0, 0, 0, 0, 0, 2, 2, 2],
     [2, 2, 2, 2, 2, 0, 2, 2],
     [2, 2, 2, 2, 2, 2, 2, 2],
     [1, 1, 1, 2, 0, 0, 2, 0],
     [2, 0, 0, 2, 2, 0, 2, 2],
     [0, 2, 0, 2, 0, 0, 0, 2],
     [0, 0, 2, 2, 2, 2, 1, 1],
     [1, 2, 2, 2, 2, 2, 2, 2],
     [2, 2, 0, 2, 2, 2, 2, 2],
     [2, 2, 2, 2, 2, 2, 2, 2],
     [2, 2, 2, 2, 1, 1, 1, 2],
     [2, 2, 2, 2, 2, 2, 2, 2],
     [0, 2, 2, 2, 2, 2, 2, 2],
     [2, 2, 2, 2, 2, 2, 2, 2],
     [2, 2, 1, 1, 1, 2, 0, 0],
     [2, 0, 2, 0, 0, 2, 2, 0],
     [2, 2, 0, 2, 0, 2, 0, 0],
     [0, 2, 2, 2, 0, 0, 2, 2],
     [2, 2, 2, 2, 1, 1, 1, 2],
     [0, 0, 2, 0, 2, 0, 0, 2],
     [2, 0, 2, 2, 0, 2, 0, 2],
     [0, 0, 0, 2, 2, 2, 0, 0],
     [2, 2, 2, 2, 2, 2, 1, 1],
     [1, 2, 0, 0, 2, 0, 2, 0],
     [0, 2, 2, 0, 2, 2, 0, 2],
     [0, 2, 0, 0, 0, 2, 2, 2],
     [0, 0, 2, 2, 2, 2, 2, 2],
     [1, 1, 1, 2, 0, 0, 2, 0],
     [2, 0, 0, 2, 2, 0, 2, 2],
     [0, 2, 0, 2, 0, 0, 0, 2],
     [0, 0, 2, 2, 2, 2, 1, 1],
     [1, 2, 0, 0, 2, 0, 2, 0],
     [0, 2, 2, 0, 2, 2, 0, 2],
     [0, 2, 0, 0, 0, 2, 2, 2],
     [2, 2, 0, 0, 2, 2, 2, 2],
     [2, 2, 2, 2, 1, 1, 1, 2],
     [0, 0, 2, 0, 2, 0, 0, 2],
     [2, 0, 2, 2, 0, 2, 0, 2],
     [0, 0, 0, 2, 2, 2, 0, 0],
     [2, 2, 2, 2, 2, 2, 1, 1],
     [1, 2, 0, 0, 2, 0, 2, 0],
     [0, 2, 2, 0, 2, 2, 0, 2],
     [0, 2, 0, 0, 0, 2, 0, 0],
     [2, 2, 2, 2, 1, 1, 1, 2],
     [0, 0, 2, 0, 2, 0, 0, 2],
     [2, 0, 2, 2, 0, 2, 0, 2],
     [0, 0, 0, 2, 2, 2, 0, 0],
     [2, 2, 2, 2, 2, 2, 1, 1],
     [1, 2, 0, 0, 2, 0, 2, 0],
     [0, 2, 2, 0, 2, 2, 0, 2],
     [0, 2, 0, 0, 0, 2, 0, 0],
     [2, 2, 2, 2, 1, 1, 1, 2],
     [0, 0, 2, 0, 2, 0, 0, 2],
     [2, 0, 2, 2, 0, 2, 0, 2],
     [0, 0, 0, 2, 2, 2, 0, 0],
     [2, 2, 2, 2, 2, 2, 1, 1],
     [1, 2, 0, 0, 2, 0, 2, 0],
     [0, 2, 2, 0, 2, 2, 0, 2],
     [0, 2, 0, 0, 0, 2, 2, 2],
     [0, 0, 2, 2, 2, 2, 2, 2],
     [1, 1, 1, 2, 0, 0, 2, 0],
     [2, 0, 0, 2, 2, 0, 2, 2],
     [0, 2, 0, 2, 0, 0, 0, 2],
     [0, 0, 2, 2, 2, 2, 1, 1],
     [1, 2, 0, 0, 2, 0, 2, 0],
     [0, 2, 2, 0, 2, 2, 0, 2],
     [0, 2, 0, 0, 0, 2, 2, 2],
     [0, 0, 2, 2, 2, 2, 2, 2],
     [1, 1, 1, 2, 0, 0, 2, 0],
     [2, 0, 0, 2, 2, 0, 2, 2],
     [0, 2, 0, 2, 0, 0, 0, 2],
     [2, 2, 0, 0, 2, 2, 2, 2],
     [2, 2, 1, 1, 1, 2, 0, 0],
     [2, 0, 2, 0, 0, 2, 2, 0],
     [2, 2, 0, 2, 0, 2, 0, 0],
     [0, 2, 0, 0, 2, 2, 2, 2],
     [2, 2, 2, 2, 2, 2, 2, 2],
     [2, 2, 0, 2, 2, 2, 2, 2],
     [2, 2, 2, 0, 2, 0, 2, 2],
     [2, 2, 2, 2, 2, 2, 2, 2],
     [2, 2, 2, 2, 2, 0, 2, 2],
     [2, 2, 2, 0, 2, 0, 2, 2],
     [2, 2, 2, 2, 2, 2, 2, 2],
     [2, 2, 2, 2, 2, 0, 2, 2],
     [2, 2, 2, 2, 2, 2, 0, 2],
     [0, 2, 2, 2, 2, 2, 2, 2],
     [2, 2, 2, 2, 2, 2, 2, 2],
     [0, 2, 2, 2, 2, 2, 0, 2],
     [0, 2, 2, 2, 2, 2, 2, 2]]"

definition sup_cond_spaces_44 :: "int list list" where
  "sup_cond_spaces_44 =
    [[2, 2, 2, 2, 2, 2, 2, 2],
     [0, 2, 2, 2, 2, 2, 2, 2],
     [2, 0, 2, 0, 2, 2, 2, 2],
     [2, 1, 1, 1, 2, 2, 2, 2],
     [2, 2, 2, 2, 2, 2, 0, 2],
     [2, 2, 2, 2, 2, 2, 0, 2],
     [2, 2, 2, 2, 1, 1, 1, 2],
     [2, 2, 2, 2, 2, 2, 2, 2],
     [2, 0, 2, 2, 2, 2, 2, 2],
     [2, 0, 2, 2, 2, 2, 2, 1],
     [1, 1, 2, 2, 2, 2, 2, 2],
     [2, 2, 2, 2, 0, 2, 2, 2],
     [2, 2, 2, 2, 0, 2, 2, 2],
     [2, 2, 1, 1, 1, 2, 2, 2],
     [2, 2, 2, 2, 2, 2, 2, 0],
     [2, 2, 2, 2, 2, 2, 2, 2],
     [2, 0, 2, 2, 2, 2, 2, 1],
     [1, 1, 2, 2, 2, 2, 2, 2],
     [2, 2, 2, 2, 0, 2, 2, 2],
     [2, 2, 2, 2, 2, 0, 2, 2],
     [2, 2, 2, 2, 2, 2, 2, 2],
     [2, 2, 2, 2, 2, 0, 2, 2],
     [2, 2, 2, 0, 2, 0, 2, 2],
     [2, 2, 2, 2, 2, 2, 2, 2],
     [2, 2, 2, 2, 2, 0, 2, 2],
     [2, 2, 2, 0, 2, 0, 2, 2],
     [2, 2, 2, 2, 2, 2, 2, 2],
     [2, 2, 2, 2, 2, 0, 2, 2],
     [2, 2, 2, 2, 2, 0, 2, 0],
     [2, 2, 2, 2, 2, 2, 2, 2],
     [2, 2, 2, 2, 2, 2, 2, 0],
     [2, 2, 2, 2, 2, 2, 0, 2],
     [0, 2, 2, 2, 2, 2, 2, 2],
     [2, 2, 2, 2, 2, 2, 2, 2],
     [0, 2, 2, 2, 2, 2, 0, 2],
     [0, 2, 2, 2, 2, 2, 2, 2],
     [2, 2, 2, 2, 2, 2, 2, 2],
     [0, 2, 2, 2, 2, 2, 0, 2],
     [0, 2, 2, 2, 2, 2, 2, 2],
     [2, 2, 2, 2, 2, 2, 2, 2],
     [0, 2, 2, 2, 2, 2, 2, 2],
     [0, 2, 0, 2, 2, 2, 2, 2],
     [2, 2, 2, 2, 2, 2, 2, 2],
     [2, 2, 0, 2, 2, 2, 2, 2],
     [2, 0, 2, 0, 2, 2, 2, 2],
     [2, 2, 2, 2, 2, 2, 2, 2],
     [2, 2, 2, 0, 2, 2, 2, 2],
     [2, 0, 2, 0, 2, 2, 2, 2],
     [2, 2, 2, 2, 2, 2, 2, 2],
     [2, 2, 2, 0, 2, 2, 2, 2],
     [2, 0, 2, 0, 2, 2, 2, 2],
     [2, 2, 2, 2, 2, 2, 2, 2],
     [2, 2, 2, 0, 2, 2, 2, 2],
     [2, 2, 2, 0, 2, 0, 2, 2],
     [2, 2, 2, 2, 2, 2, 2, 2],
     [2, 2, 2, 2, 2, 0, 2, 2],
     [2, 2, 2, 2, 0, 2, 0, 2],
     [2, 2, 2, 2, 1, 1, 1, 1],
     [1, 1, 1, 2, 2, 2, 2, 2],
     [1, 2, 1, 1, 2, 1, 1, 1],
     [1, 1, 1, 1, 1, 2, 2, 2],
     [2, 2, 1, 2, 2, 2, 1, 1],
     [2, 2, 2, 1, 1, 1, 1, 1],
     [1, 1, 1, 2, 2, 2, 2, 2],
     [1, 2, 2, 2, 1, 1, 2, 2],
     [2, 1, 1, 1, 1, 1, 1, 1],
     [1, 2, 2, 2, 2, 2, 1, 2],
     [1, 1, 2, 1, 2, 2, 2, 2],
     [2, 2, 2, 2, 2, 2, 2, 2],
     [2, 2, 2, 2, 2, 2, 2, 2],
     [1, 1, 1, 2, 2, 2, 2, 2],
     [2, 2, 2, 2, 2, 2, 2, 2],
     [2, 2, 2, 2, 2, 2, 2, 1],
     [1, 1, 1, 1, 1, 1, 1, 2],
     [1, 2, 2, 2, 2, 1, 1, 2],
     [2, 2, 1, 1, 1, 1, 1, 1],
     [1, 1, 1, 2, 1, 2, 2, 2],
     [2, 1, 1, 2, 1, 1, 1, 1],
     [2, 1, 0, 2, 0, 2, 0, 0],
     [2, 2, 2, 2, 0, 2, 2, 2],
     [2, 0, 2, 2, 0, 2, 1, 2],
     [2, 1, 1, 1, 2, 0, 2, 0],
     [2, 0, 0, 2, 2, 2, 2, 0],
     [2, 0, 2, 2, 0, 0, 2, 1],
     [2, 2, 1, 1, 1, 1, 1, 1],
     [1, 1, 1, 1, 2, 1, 2, 2],
     [2, 2, 2, 2, 1, 1, 1, 2],
     [2, 2, 2, 2, 2, 1, 1, 1],
     [1, 1, 1, 1, 1, 1, 1, 1],
     [1, 2, 1, 2, 2, 2, 2, 2],
     [2, 1, 1, 1, 2, 2, 2, 2],
     [2, 2, 1, 1, 0, 0, 0, 0],
     [0, 0, 0, 0, 0, 0, 0, 0],
     [2, 2, 0, 2, 2, 2, 2, 2],
     [2, 0, 0, 0, 0, 2, 2, 2],
     [2, 2, 2, 0, 0, 0, 0, 0],
     [0, 0, 0, 0, 0, 0, 0, 0],
     [0, 2, 2, 0, 2, 2, 2, 2],
     [2, 2, 0, 0, 0, 0, 2, 2],
     [2, 2, 2, 2, 0, 0, 0, 0],
     [0, 0, 0, 0, 0, 0, 0, 0],
     [0, 0, 2, 2, 0, 2, 2, 2],
     [2, 2, 2, 0, 0, 0, 0, 2],
     [2, 2, 2, 2, 2, 0, 0, 0],
     [0, 0, 0, 0, 0, 0, 0, 0],
     [0, 0, 0, 2, 2, 0, 2, 2],
     [2, 2, 2, 2, 0, 0, 0, 0],
     [2, 2, 2, 2, 2, 2, 0, 0],
     [0, 0, 0, 0, 0, 0, 0, 0],
     [0, 0, 0, 0, 0, 2, 0, 0],
     [0, 0, 0, 0, 0, 0, 0, 0],
     [0, 0, 0, 0, 0, 0, 0, 0],
     [0, 2, 2, 0, 2, 2, 2, 2],
     [2, 2, 0, 0, 0, 0, 2, 2],
     [2, 2, 2, 2, 0, 0, 0, 0],
     [0, 0, 0, 0, 0, 0, 0, 0],
     [0, 0, 2, 2, 0, 2, 2, 2],
     [2, 2, 2, 0, 0, 0, 0, 2],
     [2, 2, 2, 2, 2, 0, 0, 0],
     [0, 0, 0, 0, 0, 0, 0, 0],
     [0, 0, 0, 2, 2, 0, 2, 2],
     [2, 2, 2, 2, 0, 0, 0, 0],
     [2, 2, 2, 2, 2, 2, 0, 0],
     [0, 0, 0, 0, 0, 0, 0, 0],
     [0, 0, 0, 0, 2, 2, 0, 2],
     [2, 2, 2, 2, 2, 0, 0, 0],
     [0, 2, 2, 2, 2, 2, 2, 0],
     [0, 0, 0, 0, 0, 0, 0, 0],
     [0, 0, 0, 0, 0, 0, 2, 0],
     [0, 0, 0, 0, 0, 0, 0, 0],
     [0, 0, 0, 0, 0, 0, 0, 0],
     [0, 0, 2, 2, 0, 2, 2, 2],
     [2, 2, 2, 0, 0, 0, 0, 2],
     [2, 2, 2, 2, 2, 0, 0, 0],
     [0, 0, 0, 0, 0, 0, 0, 0],
     [0, 0, 0, 2, 2, 0, 2, 2],
     [2, 2, 2, 2, 0, 0, 0, 0],
     [2, 2, 2, 2, 2, 2, 0, 0],
     [0, 0, 0, 0, 0, 0, 0, 0],
     [0, 0, 0, 0, 2, 2, 0, 2],
     [2, 2, 2, 2, 2, 0, 0, 0],
     [0, 2, 2, 2, 2, 2, 2, 0],
     [0, 0, 0, 0, 0, 0, 0, 0],
     [0, 0, 0, 0, 0, 2, 2, 0],
     [2, 2, 2, 2, 2, 2, 0, 0],
     [0, 0, 2, 2, 2, 2, 2, 2],
     [0, 0, 0, 0, 0, 0, 0, 0],
     [0, 0, 0, 0, 0, 0, 0, 2],
     [0, 0, 0, 0, 0, 0, 0, 0],
     [0, 0, 0, 0, 0, 0, 0, 0]]"

definition sup_cond_spaces_45 :: "int list list" where
  "sup_cond_spaces_45 =
    [[0, 0, 0, 2, 2, 0, 2, 2],
     [2, 2, 2, 2, 0, 0, 0, 0],
     [2, 2, 2, 2, 2, 2, 0, 0],
     [0, 0, 0, 0, 0, 0, 0, 0],
     [0, 0, 0, 0, 2, 2, 0, 2],
     [2, 2, 2, 2, 2, 0, 0, 0],
     [0, 2, 2, 2, 2, 2, 2, 0],
     [0, 0, 0, 0, 0, 0, 0, 0],
     [0, 0, 0, 0, 0, 2, 2, 0],
     [2, 2, 2, 2, 2, 2, 0, 0],
     [0, 0, 2, 2, 2, 2, 2, 2],
     [0, 0, 0, 0, 0, 0, 0, 0],
     [0, 0, 0, 0, 0, 0, 2, 2],
     [0, 2, 2, 2, 2, 2, 2, 0],
     [0, 0, 0, 2, 2, 2, 2, 2],
     [2, 0, 0, 0, 0, 0, 0, 0],
     [0, 0, 0, 0, 0, 0, 0, 0],
     [2, 0, 0, 0, 0, 0, 0, 0],
     [0, 0, 0, 0, 0, 0, 0, 0],
     [0, 0, 0, 0, 2, 2, 0, 2],
     [2, 2, 2, 2, 2, 0, 0, 0],
     [0, 2, 2, 2, 2, 2, 2, 0],
     [0, 0, 0, 0, 0, 0, 0, 0],
     [0, 0, 0, 0, 0, 2, 2, 0],
     [2, 2, 2, 2, 2, 2, 0, 0],
     [0, 0, 2, 2, 2, 2, 2, 2],
     [0, 0, 0, 0, 0, 0, 0, 0],
     [0, 0, 0, 0, 0, 0, 2, 2],
     [0, 2, 2, 2, 2, 2, 2, 0],
     [0, 0, 0, 2, 2, 2, 2, 2],
     [2, 0, 0, 0, 0, 0, 0, 0],
     [0, 0, 0, 0, 0, 0, 0, 2],
     [2, 0, 2, 2, 2, 2, 2, 2],
     [0, 0, 0, 0, 2, 2, 2, 2],
     [2, 2, 0, 0, 0, 0, 0, 0],
     [0, 0, 0, 0, 0, 0, 0, 0],
     [0, 2, 0, 0, 0, 0, 0, 0],
     [0, 0, 0, 0, 0, 0, 0, 0],
     [0, 0, 0, 0, 0, 2, 2, 0],
     [2, 2, 2, 2, 2, 2, 0, 0],
     [0, 0, 2, 2, 2, 2, 2, 2],
     [0, 0, 0, 0, 0, 0, 0, 0],
     [0, 0, 0, 0, 0, 0, 2, 2],
     [0, 2, 2, 2, 2, 2, 2, 0],
     [0, 0, 0, 2, 2, 2, 2, 2],
     [2, 0, 0, 0, 0, 0, 0, 0],
     [0, 0, 0, 0, 0, 0, 0, 2],
     [2, 0, 2, 2, 2, 2, 2, 2],
     [0, 0, 0, 0, 2, 2, 2, 2],
     [2, 2, 0, 0, 0, 0, 0, 0],
     [0, 0, 0, 0, 0, 0, 0, 0],
     [2, 2, 0, 2, 2, 2, 2, 2],
     [2, 0, 0, 0, 0, 2, 2, 2],
     [2, 2, 2, 0, 0, 0, 0, 0],
     [0, 0, 0, 0, 0, 0, 0, 0],
     [0, 0, 2, 0, 0, 0, 0, 0],
     [0, 0, 0, 0, 0, 0, 0, 0],
     [0, 0, 0, 0, 0, 0, 2, 2],
     [2, 2, 2, 0, 2, 2, 2, 2],
     [2, 2, 0, 0, 0, 0, 2, 2],
     [2, 2, 2, 2, 0, 0, 0, 0],
     [0, 0, 0, 0, 0, 0, 0, 0],
     [2, 0, 2, 2, 0, 2, 2, 2],
     [2, 2, 2, 0, 0, 0, 0, 2],
     [2, 2, 2, 2, 2, 0, 0, 0],
     [0, 0, 0, 0, 0, 0, 0, 0],
     [0, 0, 0, 2, 2, 2, 2, 0],
     [0, 0, 0, 0, 0, 0, 0, 0],
     [0, 0, 0, 0, 0, 0, 0, 0],
     [0, 2, 0, 0, 0, 0, 0, 0],
     [0, 0, 0, 0, 0, 0, 0, 0],
     [0, 0, 0, 0, 0, 0, 0, 0],
     [2, 2, 2, 2, 0, 0, 0, 0],
     [0, 0, 0, 0, 0, 0, 0, 0],
     [0, 0, 0, 0, 0, 0, 2, 0],
     [0, 0, 0, 0, 0, 0, 0, 0],
     [0, 0, 0, 0, 0, 0, 0, 0],
     [0, 0, 0, 0, 0, 2, 2, 2],
     [2, 0, 0, 0, 0, 0, 0, 0],
     [0, 0, 0, 0, 0, 0, 0, 0],
     [0, 0, 0, 0, 0, 0, 0, 0],
     [0, 0, 2, 0, 0, 0, 1, 1],
     [1, 0, 0, 0, 0, 0, 0, 0],
     [0, 0, 0, 0, 0, 0, 0, 2],
     [0, 0, 0, 0, 0, 0, 0, 0],
     [0, 0, 0, 0, 0, 0, 0, 0],
     [0, 0, 2, 0, 0, 0, 0, 2],
     [0, 0, 0, 0, 0, 0, 0, 0],
     [0, 0, 0, 0, 0, 0, 0, 2],
     [0, 0, 0, 0, 2, 0, 0, 0],
     [0, 0, 0, 0, 0, 0, 0, 0],
     [0, 0, 0, 0, 2, 2, 2, 0],
     [0, 0, 0, 2, 0, 0, 0, 0],
     [0, 0, 0, 0, 0, 0, 0, 0],
     [0, 0, 0, 2, 0, 0, 0, 0],
     [0, 2, 0, 0, 0, 0, 0, 0],
     [0, 0, 0, 0, 0, 0, 0, 2],
     [0, 2, 0, 0, 0, 0, 0, 0],
     [0, 0, 0, 0, 0, 0, 0, 0],
     [0, 0, 0, 0, 2, 0, 2, 0],
     [0, 0, 0, 0, 0, 0, 0, 0],
     [0, 0, 0, 0, 0, 0, 0, 0],
     [0, 2, 0, 2, 2, 2, 0, 0],
     [0, 0, 0, 0, 0, 0, 0, 0],
     [0, 0, 0, 0, 0, 0, 0, 0],
     [2, 0, 2, 0, 0, 0, 0, 0],
     [0, 0, 0, 0, 0, 0, 0, 0],
     [0, 0, 0, 0, 0, 0, 2, 0],
     [2, 0, 0, 0, 0, 0, 0, 0],
     [0, 0, 0, 0, 0, 0, 0, 0],
     [0, 0, 0, 2, 0, 2, 0, 0],
     [0, 0, 0, 0, 0, 0, 0, 0],
     [0, 0, 0, 0, 0, 0, 0, 0],
     [2, 0, 2, 2, 2, 0, 0, 0],
     [0, 0, 0, 0, 0, 0, 0, 0],
     [0, 0, 0, 0, 0, 0, 0, 2],
     [0, 2, 0, 0, 0, 0, 0, 0],
     [0, 0, 0, 0, 0, 0, 0, 0],
     [0, 0, 0, 0, 0, 0, 0, 2],
     [2, 0, 2, 2, 2, 2, 2, 2],
     [0, 0, 0, 0, 2, 2, 2, 2],
     [2, 2, 0, 0, 0, 0, 0, 0],
     [0, 0, 0, 0, 0, 0, 0, 0],
     [2, 2, 0, 2, 2, 2, 2, 2],
     [2, 0, 0, 0, 0, 2, 2, 2],
     [2, 2, 2, 0, 0, 0, 0, 0],
     [0, 0, 0, 0, 0, 0, 0, 0],
     [0, 0, 2, 0, 0, 0, 0, 0],
     [0, 0, 0, 0, 0, 0, 0, 0],
     [0, 0, 0, 0, 0, 0, 2, 2],
     [0, 2, 2, 2, 2, 2, 2, 0],
     [0, 0, 0, 2, 2, 2, 2, 2],
     [2, 0, 0, 0, 0, 0, 0, 0],
     [0, 0, 0, 0, 0, 0, 0, 2],
     [0, 0, 2, 2, 2, 2, 2, 2],
     [0, 0, 2, 0, 2, 2, 2, 2],
     [2, 2, 0, 0, 0, 0, 0, 0],
     [0, 0, 0, 0, 0, 0, 0, 0],
     [2, 0, 0, 2, 2, 2, 2, 2],
     [2, 0, 0, 2, 0, 2, 2, 2],
     [2, 2, 2, 0, 0, 0, 0, 0],
     [0, 0, 0, 0, 0, 0, 0, 0],
     [0, 2, 0, 0, 2, 2, 2, 2],
     [2, 2, 0, 0, 2, 0, 2, 2],
     [2, 2, 2, 2, 0, 0, 0, 0],
     [0, 0, 0, 0, 0, 0, 0, 0],
     [2, 0, 2, 2, 0, 2, 2, 2],
     [2, 2, 2, 0, 0, 0, 0, 2],
     [2, 2, 2, 2, 2, 0, 0, 0],
     [0, 0, 0, 0, 0, 0, 0, 0]]"

definition sup_cond_spaces_46 :: "int list list" where
  "sup_cond_spaces_46 =
    [[0, 2, 0, 2, 2, 0, 2, 2],
     [2, 2, 2, 2, 0, 0, 0, 0],
     [2, 2, 2, 2, 2, 2, 0, 0],
     [0, 0, 0, 0, 0, 0, 0, 0],
     [0, 0, 2, 0, 2, 2, 0, 2],
     [2, 2, 2, 2, 2, 0, 0, 0],
     [0, 2, 2, 2, 2, 2, 2, 0],
     [0, 0, 0, 0, 0, 0, 0, 0],
     [0, 0, 0, 2, 0, 2, 2, 2],
     [2, 0, 2, 2, 2, 2, 2, 2],
     [0, 0, 0, 0, 2, 2, 2, 2],
     [2, 2, 0, 0, 0, 0, 0, 0],
     [0, 0, 0, 0, 0, 0, 2, 0],
     [2, 2, 2, 0, 2, 2, 2, 2],
     [2, 2, 0, 0, 0, 0, 2, 2],
     [2, 2, 2, 2, 0, 0, 0, 0],
     [0, 0, 0, 0, 0, 0, 0, 0],
     [2, 0, 2, 2, 0, 2, 2, 2],
     [2, 2, 2, 0, 0, 0, 0, 2],
     [2, 2, 2, 2, 2, 0, 0, 0],
     [0, 0, 0, 0, 0, 0, 0, 0],
     [0, 2, 0, 2, 2, 0, 2, 2],
     [2, 2, 2, 2, 0, 0, 0, 0],
     [2, 2, 2, 2, 2, 2, 0, 0],
     [0, 0, 0, 0, 0, 0, 0, 0],
     [0, 0, 0, 0, 2, 0, 0, 2],
     [2, 2, 2, 2, 2, 0, 0, 2],
     [0, 2, 2, 2, 2, 2, 2, 0],
     [0, 0, 0, 0, 0, 0, 0, 0],
     [0, 0, 0, 0, 0, 2, 2, 0],
     [2, 2, 2, 2, 2, 2, 0, 0],
     [0, 0, 2, 2, 2, 2, 2, 2],
     [0, 0, 0, 0, 0, 0, 0, 0],
     [0, 0, 0, 0, 0, 0, 2, 2],
     [2, 2, 0, 0, 2, 2, 2, 2],
     [2, 2, 0, 0, 2, 0, 2, 2],
     [2, 2, 2, 2, 0, 0, 0, 0],
     [0, 0, 0, 0, 0, 0, 0, 0],
     [2, 0, 2, 2, 0, 2, 2, 2],
     [2, 2, 2, 0, 0, 2, 0, 2],
     [2, 2, 2, 2, 2, 0, 0, 0],
     [0, 0, 0, 0, 0, 0, 0, 0],
     [0, 0, 0, 2, 2, 0, 2, 2],
     [2, 2, 2, 2, 0, 0, 2, 0],
     [2, 2, 2, 2, 2, 2, 0, 0],
     [0, 0, 0, 0, 0, 0, 0, 0],
     [0, 0, 0, 0, 2, 2, 0, 2],
     [2, 2, 2, 2, 2, 0, 0, 2],
     [0, 2, 2, 2, 2, 2, 2, 0],
     [0, 0, 0, 0, 0, 0, 0, 0],
     [0, 0, 0, 0, 0, 0, 2, 0],
     [0, 0, 2, 0, 0, 0, 0, 0],
     [0, 0, 0, 0, 0, 0, 0, 0],
     [0, 0, 2, 0, 0, 2, 2, 2],
     [2, 2, 2, 0, 0, 0, 0, 2],
     [2, 2, 2, 2, 2, 0, 0, 0],
     [0, 0, 0, 0, 0, 0, 0, 0],
     [0, 2, 0, 2, 2, 0, 2, 2],
     [2, 2, 2, 2, 0, 0, 2, 0],
     [2, 2, 2, 2, 2, 2, 0, 0],
     [0, 0, 0, 0, 0, 0, 0, 0],
     [0, 0, 2, 0, 2, 2, 0, 2],
     [2, 2, 2, 2, 2, 0, 0, 2],
     [0, 2, 2, 2, 2, 2, 2, 0],
     [0, 0, 0, 0, 0, 0, 0, 0],
     [0, 0, 0, 2, 0, 2, 2, 0],
     [2, 2, 2, 2, 2, 2, 0, 0],
     [2, 0, 2, 2, 2, 2, 2, 2],
     [0, 0, 0, 0, 0, 0, 0, 0],
     [0, 0, 0, 0, 2, 0, 2, 2],
     [2, 2, 0, 2, 2, 2, 2, 2],
     [2, 0, 0, 2, 0, 2, 2, 2],
     [2, 2, 2, 0, 0, 0, 0, 0],
     [0, 0, 0, 0, 0, 0, 0, 2],
     [0, 2, 2, 2, 0, 2, 2, 2],
     [2, 2, 2, 0, 0, 2, 0, 2],
     [2, 2, 2, 2, 2, 0, 0, 0],
     [0, 0, 0, 0, 0, 0, 0, 0],
     [0, 2, 0, 2, 2, 0, 2, 2],
     [2, 2, 2, 2, 0, 0, 2, 0],
     [2, 2, 2, 2, 2, 2, 0, 0],
     [0, 0, 0, 0, 0, 0, 0, 0],
     [0, 0, 2, 0, 2, 2, 0, 2],
     [2, 2, 2, 2, 2, 0, 0, 2],
     [0, 2, 2, 2, 2, 2, 2, 0],
     [0, 0, 0, 0, 0, 0, 0, 0],
     [0, 0, 0, 0, 0, 2, 2, 0],
     [2, 2, 2, 2, 2, 2, 0, 0],
     [2, 0, 2, 2, 2, 2, 2, 2],
     [0, 0, 0, 0, 0, 0, 0, 0],
     [0, 0, 0, 0, 0, 0, 2, 2],
     [2, 2, 0, 0, 2, 2, 2, 2],
     [2, 2, 0, 0, 2, 0, 2, 2],
     [2, 2, 2, 2, 0, 0, 0, 0],
     [0, 0, 0, 0, 0, 0, 0, 0],
     [2, 0, 2, 2, 0, 2, 2, 2],
     [2, 2, 2, 0, 0, 2, 0, 2],
     [2, 2, 2, 2, 2, 0, 0, 0],
     [0, 0, 0, 0, 0, 0, 0, 0],
     [0, 0, 0, 2, 2, 0, 2, 2],
     [2, 2, 2, 2, 0, 0, 2, 0],
     [2, 2, 2, 2, 2, 2, 0, 0],
     [0, 0, 0, 0, 0, 0, 0, 0],
     [0, 0, 0, 0, 2, 2, 0, 2],
     [2, 2, 2, 2, 2, 0, 0, 2],
     [0, 2, 2, 2, 2, 2, 2, 0],
     [0, 0, 0, 0, 0, 0, 0, 0],
     [0, 0, 0, 0, 0, 0, 2, 0],
     [0, 0, 2, 0, 0, 0, 0, 0],
     [0, 0, 0, 0, 0, 0, 0, 0],
     [0, 0, 2, 2, 2, 2, 0, 0],
     [2, 2, 2, 2, 2, 2, 0, 0],
     [0, 0, 2, 2, 2, 2, 2, 2],
     [0, 0, 0, 0, 0, 0, 0, 0],
     [0, 0, 0, 0, 2, 0, 2, 2],
     [0, 2, 2, 2, 2, 2, 2, 0],
     [0, 2, 0, 2, 2, 2, 2, 2],
     [2, 0, 0, 0, 0, 0, 0, 0],
     [0, 0, 0, 0, 0, 2, 0, 2],
     [2, 0, 2, 2, 2, 2, 2, 2],
     [0, 0, 2, 0, 2, 2, 2, 2],
     [2, 2, 0, 0, 0, 0, 0, 0],
     [0, 0, 0, 0, 0, 0, 2, 0],
     [2, 2, 0, 2, 2, 2, 2, 2],
     [2, 0, 0, 2, 0, 2, 2, 2],
     [2, 2, 2, 0, 0, 0, 0, 0],
     [0, 0, 0, 0, 0, 0, 0, 2],
     [0, 2, 2, 2, 2, 0, 2, 2],
     [2, 2, 2, 2, 0, 0, 2, 0],
     [2, 2, 2, 2, 2, 2, 0, 0],
     [0, 0, 0, 0, 0, 0, 0, 0],
     [0, 0, 2, 0, 2, 2, 2, 0],
     [2, 2, 2, 2, 2, 2, 0, 0],
     [2, 0, 2, 2, 2, 2, 2, 2],
     [0, 0, 0, 0, 0, 0, 0, 0],
     [0, 0, 0, 0, 2, 0, 2, 2],
     [0, 2, 2, 2, 2, 2, 2, 0],
     [0, 2, 0, 2, 2, 2, 2, 2],
     [2, 0, 0, 0, 0, 0, 0, 0],
     [0, 0, 0, 0, 0, 2, 0, 2],
     [2, 0, 2, 2, 2, 2, 2, 2],
     [0, 0, 2, 0, 2, 2, 2, 2],
     [2, 2, 0, 0, 0, 0, 0, 0],
     [0, 0, 0, 0, 0, 0, 0, 0],
     [2, 2, 0, 2, 2, 2, 2, 2],
     [2, 0, 0, 2, 0, 2, 2, 2],
     [2, 2, 2, 0, 0, 0, 0, 0],
     [0, 0, 0, 0, 0, 0, 0, 0],
     [0, 2, 2, 2, 2, 0, 0, 2],
     [2, 2, 2, 2, 2, 0, 0, 2]]"

definition sup_cond_spaces_47 :: "int list list" where
  "sup_cond_spaces_47 =
    [[0, 2, 2, 2, 2, 2, 2, 0],
     [0, 0, 0, 0, 0, 0, 0, 0],
     [0, 0, 0, 2, 0, 2, 2, 0],
     [2, 2, 2, 2, 2, 2, 0, 0],
     [2, 0, 2, 2, 2, 2, 2, 2],
     [0, 0, 0, 0, 0, 0, 0, 0],
     [0, 0, 0, 0, 0, 0, 2, 2],
     [0, 2, 2, 2, 2, 2, 2, 0],
     [0, 2, 0, 2, 2, 2, 2, 2],
     [2, 0, 0, 0, 0, 0, 0, 0],
     [0, 0, 0, 0, 0, 0, 0, 2],
     [2, 0, 2, 2, 2, 2, 2, 2],
     [0, 0, 2, 0, 2, 2, 2, 2],
     [2, 2, 0, 0, 0, 0, 0, 0],
     [0, 0, 0, 0, 0, 0, 0, 0],
     [0, 2, 0, 0, 0, 2, 0, 0],
     [0, 0, 0, 0, 0, 0, 0, 0],
     [0, 0, 0, 0, 0, 2, 2, 2],
     [2, 0, 0, 2, 2, 2, 2, 2],
     [2, 0, 0, 0, 0, 2, 2, 2],
     [2, 2, 2, 0, 0, 0, 0, 0],
     [0, 0, 0, 0, 0, 0, 0, 2],
     [0, 2, 2, 0, 2, 2, 2, 2],
     [2, 2, 0, 0, 2, 0, 2, 2],
     [2, 2, 2, 2, 0, 0, 0, 0],
     [0, 0, 0, 0, 0, 0, 0, 0],
     [2, 0, 2, 2, 0, 2, 2, 2],
     [2, 2, 2, 0, 0, 2, 0, 2],
     [2, 2, 2, 2, 2, 0, 0, 0],
     [0, 0, 0, 0, 0, 0, 0, 0],
     [0, 2, 0, 2, 2, 0, 2, 2],
     [2, 2, 2, 2, 0, 0, 2, 0],
     [2, 2, 2, 2, 2, 2, 0, 0],
     [0, 0, 0, 0, 0, 0, 0, 0],
     [0, 0, 2, 0, 2, 2, 2, 2],
     [0, 2, 2, 2, 2, 2, 2, 0],
     [0, 2, 0, 2, 2, 2, 2, 2],
     [2, 0, 0, 0, 0, 0, 0, 0],
     [0, 0, 0, 0, 0, 2, 0, 2],
     [2, 2, 0, 2, 2, 2, 2, 2],
     [2, 0, 0, 2, 0, 2, 2, 2],
     [2, 2, 2, 0, 0, 0, 0, 0],
     [0, 0, 0, 0, 0, 0, 0, 2],
     [0, 2, 2, 0, 2, 2, 2, 2],
     [2, 2, 0, 0, 2, 0, 2, 2],
     [2, 2, 2, 2, 0, 0, 0, 0],
     [0, 0, 0, 0, 0, 0, 0, 0],
     [2, 0, 2, 2, 0, 2, 2, 2],
     [2, 2, 2, 0, 0, 2, 0, 2],
     [2, 2, 2, 2, 2, 0, 0, 0],
     [0, 0, 0, 0, 0, 0, 0, 0],
     [0, 0, 0, 2, 2, 0, 2, 2],
     [2, 2, 2, 2, 0, 0, 2, 0],
     [2, 2, 2, 2, 2, 2, 0, 0],
     [0, 0, 0, 0, 0, 0, 0, 0],
     [0, 0, 0, 0, 2, 2, 2, 2],
     [0, 0, 2, 2, 2, 2, 2, 2],
     [0, 0, 2, 0, 2, 2, 2, 2],
     [2, 2, 0, 0, 0, 0, 0, 0],
     [0, 0, 0, 0, 0, 0, 2, 0],
     [2, 2, 0, 2, 2, 2, 2, 2],
     [2, 0, 0, 2, 0, 2, 2, 2],
     [2, 2, 2, 0, 0, 0, 0, 0],
     [0, 0, 0, 0, 0, 0, 0, 0],
     [0, 2, 2, 0, 2, 2, 2, 2],
     [2, 2, 0, 0, 2, 0, 2, 2],
     [2, 2, 2, 2, 0, 0, 0, 0],
     [0, 0, 0, 0, 0, 0, 0, 0],
     [0, 0, 2, 2, 0, 2, 2, 2],
     [2, 2, 2, 0, 0, 2, 0, 2],
     [2, 2, 2, 2, 2, 0, 0, 0],
     [0, 0, 0, 0, 0, 0, 0, 0],
     [0, 0, 0, 0, 2, 0, 0, 0],
     [2, 0, 0, 0, 0, 0, 0, 0],
     [0, 0, 0, 0, 0, 0, 0, 0],
     [2, 2, 2, 2, 0, 0, 2, 2],
     [2, 2, 2, 2, 0, 0, 0, 0],
     [2, 2, 2, 2, 2, 2, 0, 0],
     [0, 0, 0, 0, 0, 0, 0, 0],
     [0, 0, 2, 0, 2, 2, 0, 2],
     [2, 2, 2, 2, 2, 0, 0, 2],
     [0, 2, 2, 2, 2, 2, 2, 0],
     [0, 0, 0, 0, 0, 0, 0, 0],
     [0, 0, 0, 2, 0, 2, 2, 0],
     [2, 2, 2, 2, 2, 2, 0, 0],
     [2, 0, 2, 2, 2, 2, 2, 2],
     [0, 0, 0, 0, 0, 0, 0, 0],
     [0, 0, 0, 0, 2, 0, 2, 2],
     [0, 2, 2, 2, 2, 2, 2, 0],
     [0, 2, 0, 2, 2, 2, 2, 2],
     [2, 0, 0, 0, 0, 0, 0, 0],
     [0, 0, 0, 0, 0, 2, 0, 2],
     [2, 2, 2, 0, 2, 2, 2, 2],
     [2, 2, 0, 0, 2, 0, 2, 2],
     [2, 2, 2, 2, 0, 0, 0, 0],
     [0, 0, 0, 0, 0, 0, 0, 0],
     [2, 0, 2, 2, 2, 0, 2, 2],
     [2, 2, 2, 2, 0, 0, 2, 0],
     [2, 2, 2, 2, 2, 2, 0, 0],
     [0, 0, 0, 0, 0, 0, 0, 0],
     [0, 0, 2, 0, 2, 2, 0, 2],
     [2, 2, 2, 2, 2, 0, 0, 2],
     [0, 2, 2, 2, 2, 2, 2, 0],
     [0, 0, 0, 0, 0, 0, 0, 0],
     [0, 0, 0, 2, 0, 2, 2, 0],
     [2, 2, 2, 2, 2, 2, 0, 0],
     [2, 0, 2, 2, 2, 2, 2, 2],
     [0, 0, 0, 0, 0, 0, 0, 0],
     [0, 0, 0, 0, 0, 0, 2, 2],
     [0, 2, 2, 2, 2, 2, 2, 0],
     [0, 2, 0, 2, 2, 2, 2, 2],
     [2, 0, 0, 0, 0, 0, 0, 0],
     [0, 0, 0, 0, 0, 0, 0, 2],
     [2, 2, 2, 0, 0, 2, 2, 2],
     [2, 2, 2, 0, 0, 2, 0, 2],
     [2, 2, 2, 2, 2, 0, 0, 0],
     [0, 0, 0, 0, 0, 0, 0, 0],
     [0, 2, 0, 2, 2, 0, 2, 2],
     [2, 2, 2, 2, 0, 0, 2, 0],
     [2, 2, 2, 2, 2, 2, 0, 0],
     [0, 0, 0, 0, 0, 0, 0, 0],
     [0, 0, 0, 0, 2, 2, 0, 2],
     [2, 2, 2, 2, 2, 0, 0, 2],
     [0, 2, 2, 2, 2, 2, 2, 0],
     [0, 0, 0, 0, 0, 0, 0, 0],
     [0, 0, 0, 0, 0, 2, 2, 0],
     [2, 2, 2, 2, 2, 2, 0, 0],
     [2, 0, 2, 2, 2, 2, 2, 2],
     [0, 0, 0, 0, 0, 0, 0, 0],
     [0, 0, 0, 0, 0, 0, 0, 2],
     [0, 0, 0, 2, 0, 0, 0, 0],
     [0, 0, 0, 0, 0, 0, 0, 0],
     [0, 0, 0, 2, 2, 2, 2, 0],
     [0, 2, 2, 2, 2, 2, 2, 0],
     [0, 0, 0, 2, 2, 2, 2, 2],
     [2, 0, 0, 0, 0, 0, 0, 0],
     [0, 0, 0, 0, 0, 2, 0, 2],
     [2, 0, 2, 2, 2, 2, 2, 2],
     [0, 0, 2, 0, 2, 2, 2, 2],
     [2, 2, 0, 0, 0, 0, 0, 0],
     [0, 0, 0, 0, 0, 0, 2, 0],
     [2, 2, 0, 2, 2, 2, 2, 2],
     [2, 0, 0, 2, 0, 2, 2, 2],
     [2, 2, 2, 0, 0, 0, 0, 0],
     [0, 0, 0, 0, 0, 0, 0, 2],
     [0, 2, 2, 0, 2, 2, 2, 2],
     [2, 2, 0, 0, 2, 0, 2, 2],
     [2, 2, 2, 2, 0, 0, 0, 0],
     [0, 0, 0, 0, 0, 0, 0, 0],
     [2, 0, 2, 2, 2, 2, 0, 2]]"

definition sup_cond_spaces_48 :: "int list list" where
  "sup_cond_spaces_48 =
    [[2, 2, 2, 2, 2, 0, 0, 2],
     [0, 2, 2, 2, 2, 2, 2, 0],
     [0, 0, 0, 0, 0, 0, 0, 0],
     [0, 0, 0, 2, 0, 2, 2, 2],
     [0, 2, 2, 2, 2, 2, 2, 0],
     [0, 2, 0, 2, 2, 2, 2, 2],
     [2, 0, 0, 0, 0, 0, 0, 0],
     [0, 0, 0, 0, 0, 2, 0, 2],
     [2, 0, 2, 2, 2, 2, 2, 2],
     [0, 0, 2, 0, 2, 2, 2, 2],
     [2, 2, 0, 0, 0, 0, 0, 0],
     [0, 0, 0, 0, 0, 0, 2, 0],
     [2, 2, 0, 2, 2, 2, 2, 2],
     [2, 0, 0, 2, 0, 2, 2, 2],
     [2, 2, 2, 0, 0, 0, 0, 0],
     [0, 0, 0, 0, 0, 0, 0, 0],
     [0, 2, 2, 0, 2, 2, 2, 2],
     [2, 2, 0, 0, 2, 0, 2, 2],
     [2, 2, 2, 2, 0, 0, 0, 0],
     [0, 0, 0, 0, 0, 0, 0, 0],
     [0, 0, 0, 2, 0, 0, 0, 0],
     [0, 0, 0, 0, 0, 0, 0, 0],
     [0, 0, 0, 0, 0, 0, 0, 2],
     [2, 2, 2, 0, 0, 2, 2, 2],
     [2, 2, 2, 0, 0, 2, 0, 2],
     [2, 2, 2, 2, 2, 0, 0, 0],
     [0, 0, 0, 0, 0, 0, 0, 0],
     [0, 2, 0, 2, 2, 0, 2, 2],
     [2, 2, 2, 2, 0, 0, 2, 0],
     [2, 2, 2, 2, 2, 2, 0, 0],
     [0, 0, 0, 0, 0, 0, 0, 0],
     [0, 0, 0, 0, 2, 2, 0, 2],
     [2, 2, 2, 2, 2, 0, 0, 2],
     [0, 2, 2, 2, 2, 2, 2, 0],
     [0, 0, 0, 0, 0, 0, 0, 0],
     [0, 0, 0, 0, 0, 2, 2, 0],
     [2, 2, 2, 2, 2, 2, 0, 0],
     [2, 0, 2, 2, 2, 2, 2, 2],
     [0, 0, 0, 0, 0, 0, 0, 0],
     [0, 0, 0, 0, 0, 0, 0, 2],
     [0, 0, 0, 2, 0, 0, 0, 0],
     [0, 0, 0, 0, 0, 0, 0, 0],
     [0, 0, 0, 2, 2, 2, 2, 0],
     [0, 2, 2, 2, 2, 2, 2, 0],
     [0, 0, 0, 2, 2, 2, 2, 2],
     [2, 0, 0, 0, 0, 0, 0, 0],
     [0, 0, 0, 0, 0, 2, 0, 2],
     [2, 0, 2, 2, 2, 2, 2, 2],
     [0, 0, 2, 0, 2, 2, 2, 2],
     [2, 2, 0, 0, 0, 0, 0, 0],
     [0, 0, 0, 0, 0, 0, 2, 0],
     [2, 2, 0, 2, 2, 2, 2, 2],
     [2, 0, 0, 2, 0, 2, 2, 2],
     [2, 2, 2, 0, 0, 0, 0, 0],
     [0, 0, 0, 0, 0, 0, 0, 2],
     [0, 2, 2, 0, 2, 2, 2, 2],
     [2, 2, 0, 0, 2, 0, 2, 2],
     [2, 2, 2, 2, 0, 0, 0, 0],
     [0, 0, 0, 0, 0, 0, 0, 0],
     [2, 0, 2, 2, 2, 2, 0, 2],
     [2, 2, 2, 2, 2, 0, 0, 2],
     [0, 2, 2, 2, 2, 2, 2, 0],
     [0, 0, 0, 0, 0, 0, 0, 0],
     [0, 0, 0, 2, 0, 2, 2, 2],
     [0, 2, 2, 2, 2, 2, 2, 0],
     [0, 2, 0, 2, 2, 2, 2, 2],
     [2, 0, 0, 0, 0, 0, 0, 0],
     [0, 0, 0, 0, 0, 2, 0, 2],
     [2, 0, 2, 2, 2, 2, 2, 2],
     [0, 0, 2, 0, 2, 2, 2, 2],
     [2, 2, 0, 0, 0, 0, 0, 0],
     [0, 0, 0, 0, 0, 0, 2, 0],
     [2, 2, 0, 2, 2, 2, 2, 2],
     [2, 0, 0, 2, 0, 2, 2, 2],
     [2, 2, 2, 0, 0, 0, 0, 0],
     [0, 0, 0, 0, 0, 0, 0, 0],
     [0, 2, 2, 0, 2, 2, 2, 2],
     [2, 2, 0, 0, 2, 0, 2, 2],
     [2, 2, 2, 2, 0, 0, 1, 1],
     [1, 1, 1, 1, 1, 1, 2, 1],
     [2, 2, 2, 2, 2, 2, 1, 1],
     [2, 2, 2, 1, 1, 1, 1, 1],
     [1, 1, 1, 1, 2, 1, 2, 2],
     [2, 2, 2, 2, 1, 1, 2, 2],
     [2, 1, 1, 1, 1, 1, 1, 1],
     [1, 1, 2, 1, 2, 2, 2, 2],
     [2, 2, 1, 1, 2, 2, 2, 1],
     [1, 1, 1, 1, 1, 1, 1, 1],
     [2, 1, 2, 2, 2, 2, 2, 2],
     [1, 1, 2, 2, 2, 1, 1, 1],
     [1, 1, 1, 1, 1, 1, 2, 1],
     [2, 2, 2, 2, 1, 1, 2, 1],
     [1, 1, 1, 1, 1, 1, 1, 1],
     [2, 1, 2, 2, 2, 2, 2, 2],
     [1, 1, 2, 2, 2, 1, 1, 1],
     [1, 1, 1, 1, 1, 1, 2, 1],
     [2, 2, 2, 2, 2, 2, 1, 1],
     [2, 2, 2, 1, 1, 1, 1, 1],
     [1, 1, 1, 1, 2, 1, 2, 2],
     [2, 2, 2, 2, 1, 1, 2, 2],
     [2, 1, 1, 1, 1, 1, 1, 1],
     [1, 1, 2, 1, 2, 2, 2, 2],
     [2, 2, 1, 1, 2, 2, 2, 1],
     [1, 1, 1, 1, 1, 1, 1, 1],
     [2, 1, 2, 2, 2, 2, 2, 2],
     [1, 1, 2, 2, 2, 1, 1, 1],
     [1, 1, 1, 1, 1, 1, 2, 1],
     [2, 2, 2, 2, 2, 2, 1, 1],
     [2, 2, 2, 1, 1, 1, 1, 1],
     [1, 1, 1, 1, 2, 1, 2, 2],
     [2, 2, 2, 2, 1, 1, 2, 2],
     [2, 1, 1, 1, 1, 1, 1, 1],
     [1, 1, 2, 1, 2, 2, 2, 2],
     [1, 1, 2, 1, 1, 1, 1, 2],
     [1, 0, 2, 0, 2, 0, 0, 2],
     [2, 2, 2, 0, 2, 2, 2, 2],
     [0, 2, 2, 0, 2, 1, 2, 2],
     [1, 1, 1, 2, 0, 2, 0, 2],
     [0, 0, 2, 2, 2, 2, 0, 2],
     [0, 2, 2, 0, 0, 2, 1, 2],
     [2, 1, 1, 1, 2, 0, 2, 0],
     [2, 0, 0, 2, 2, 2, 2, 0],
     [2, 0, 2, 2, 0, 0, 2, 1],
     [2, 2, 1, 1, 1, 2, 0, 2],
     [0, 2, 0, 0, 2, 2, 2, 2],
     [0, 2, 0, 2, 2, 0, 0, 2],
     [1, 2, 2, 1, 1, 1, 2, 0],
     [2, 0, 2, 0, 0, 2, 2, 2],
     [2, 0, 2, 0, 2, 2, 0, 0],
     [2, 1, 2, 2, 1, 1, 1, 2],
     [0, 2, 0, 2, 0, 0, 2, 2],
     [2, 2, 0, 2, 0, 2, 2, 0],
     [0, 2, 1, 2, 2, 1, 1, 1],
     [2, 0, 2, 0, 2, 0, 0, 2],
     [2, 2, 2, 0, 2, 0, 2, 2],
     [0, 0, 2, 1, 2, 2, 1, 1],
     [1, 2, 0, 2, 0, 2, 0, 0],
     [2, 2, 2, 2, 0, 2, 0, 2],
     [2, 0, 0, 2, 1, 2, 2, 1],
     [1, 1, 2, 0, 2, 0, 2, 0],
     [0, 2, 2, 2, 2, 0, 2, 0],
     [2, 2, 0, 0, 2, 1, 2, 2],
     [2, 2, 2, 2, 2, 2, 2, 2],
     [2, 2, 2, 2, 2, 2, 2, 2],
     [2, 2, 2, 2, 2, 2, 2, 2],
     [1, 1, 1, 2, 2, 2, 2, 2],
     [2, 0]]"

definition sup_cond_spaces :: "int list" where
  "sup_cond_spaces =
     concat sup_cond_spaces_1 @ concat sup_cond_spaces_2 @ concat sup_cond_spaces_3 @
     concat sup_cond_spaces_4 @ concat sup_cond_spaces_5 @ concat sup_cond_spaces_6 @
     concat sup_cond_spaces_7 @ concat sup_cond_spaces_8 @ concat sup_cond_spaces_9 @
     concat sup_cond_spaces_10 @ concat sup_cond_spaces_11 @ concat sup_cond_spaces_12 @
     concat sup_cond_spaces_13 @ concat sup_cond_spaces_14 @ concat sup_cond_spaces_15 @
     concat sup_cond_spaces_16 @ concat sup_cond_spaces_17 @ concat sup_cond_spaces_18 @
     concat sup_cond_spaces_19 @ concat sup_cond_spaces_20 @ concat sup_cond_spaces_21 @
     concat sup_cond_spaces_22 @ concat sup_cond_spaces_23 @ concat sup_cond_spaces_24 @
     concat sup_cond_spaces_25 @ concat sup_cond_spaces_26 @ concat sup_cond_spaces_27 @
     concat sup_cond_spaces_28 @ concat sup_cond_spaces_29 @ concat sup_cond_spaces_30 @
     concat sup_cond_spaces_31 @ concat sup_cond_spaces_32 @ concat sup_cond_spaces_33 @
     concat sup_cond_spaces_34 @ concat sup_cond_spaces_35 @ concat sup_cond_spaces_36 @
     concat sup_cond_spaces_37 @ concat sup_cond_spaces_38 @ concat sup_cond_spaces_39 @
     concat sup_cond_spaces_40 @ concat sup_cond_spaces_41 @ concat sup_cond_spaces_42 @
     concat sup_cond_spaces_43 @ concat sup_cond_spaces_44 @ concat sup_cond_spaces_45 @
     concat sup_cond_spaces_46 @ concat sup_cond_spaces_47 @ concat sup_cond_spaces_48"

lemma sup_cond_spaces_1_length: "int (length (concat sup_cond_spaces_1)) = 1200"
  unfolding rows_length sup_cond_spaces_1_def by (simp only: row_arith)

lemma sup_cond_spaces_2_length: "int (length (concat sup_cond_spaces_2)) = 1200"
  unfolding rows_length sup_cond_spaces_2_def by (simp only: row_arith)

lemma sup_cond_spaces_3_length: "int (length (concat sup_cond_spaces_3)) = 1200"
  unfolding rows_length sup_cond_spaces_3_def by (simp only: row_arith)

lemma sup_cond_spaces_4_length: "int (length (concat sup_cond_spaces_4)) = 1200"
  unfolding rows_length sup_cond_spaces_4_def by (simp only: row_arith)

lemma sup_cond_spaces_5_length: "int (length (concat sup_cond_spaces_5)) = 1200"
  unfolding rows_length sup_cond_spaces_5_def by (simp only: row_arith)

lemma sup_cond_spaces_6_length: "int (length (concat sup_cond_spaces_6)) = 1200"
  unfolding rows_length sup_cond_spaces_6_def by (simp only: row_arith)

lemma sup_cond_spaces_7_length: "int (length (concat sup_cond_spaces_7)) = 1200"
  unfolding rows_length sup_cond_spaces_7_def by (simp only: row_arith)

lemma sup_cond_spaces_8_length: "int (length (concat sup_cond_spaces_8)) = 1200"
  unfolding rows_length sup_cond_spaces_8_def by (simp only: row_arith)

lemma sup_cond_spaces_9_length: "int (length (concat sup_cond_spaces_9)) = 1200"
  unfolding rows_length sup_cond_spaces_9_def by (simp only: row_arith)

lemma sup_cond_spaces_10_length: "int (length (concat sup_cond_spaces_10)) = 1200"
  unfolding rows_length sup_cond_spaces_10_def by (simp only: row_arith)

lemma sup_cond_spaces_11_length: "int (length (concat sup_cond_spaces_11)) = 1200"
  unfolding rows_length sup_cond_spaces_11_def by (simp only: row_arith)

lemma sup_cond_spaces_12_length: "int (length (concat sup_cond_spaces_12)) = 1200"
  unfolding rows_length sup_cond_spaces_12_def by (simp only: row_arith)

lemma sup_cond_spaces_13_length: "int (length (concat sup_cond_spaces_13)) = 1200"
  unfolding rows_length sup_cond_spaces_13_def by (simp only: row_arith)

lemma sup_cond_spaces_14_length: "int (length (concat sup_cond_spaces_14)) = 1200"
  unfolding rows_length sup_cond_spaces_14_def by (simp only: row_arith)

lemma sup_cond_spaces_15_length: "int (length (concat sup_cond_spaces_15)) = 1200"
  unfolding rows_length sup_cond_spaces_15_def by (simp only: row_arith)

lemma sup_cond_spaces_16_length: "int (length (concat sup_cond_spaces_16)) = 1200"
  unfolding rows_length sup_cond_spaces_16_def by (simp only: row_arith)

lemma sup_cond_spaces_17_length: "int (length (concat sup_cond_spaces_17)) = 1200"
  unfolding rows_length sup_cond_spaces_17_def by (simp only: row_arith)

lemma sup_cond_spaces_18_length: "int (length (concat sup_cond_spaces_18)) = 1200"
  unfolding rows_length sup_cond_spaces_18_def by (simp only: row_arith)

lemma sup_cond_spaces_19_length: "int (length (concat sup_cond_spaces_19)) = 1200"
  unfolding rows_length sup_cond_spaces_19_def by (simp only: row_arith)

lemma sup_cond_spaces_20_length: "int (length (concat sup_cond_spaces_20)) = 1200"
  unfolding rows_length sup_cond_spaces_20_def by (simp only: row_arith)

lemma sup_cond_spaces_21_length: "int (length (concat sup_cond_spaces_21)) = 1200"
  unfolding rows_length sup_cond_spaces_21_def by (simp only: row_arith)

lemma sup_cond_spaces_22_length: "int (length (concat sup_cond_spaces_22)) = 1200"
  unfolding rows_length sup_cond_spaces_22_def by (simp only: row_arith)

lemma sup_cond_spaces_23_length: "int (length (concat sup_cond_spaces_23)) = 1200"
  unfolding rows_length sup_cond_spaces_23_def by (simp only: row_arith)

lemma sup_cond_spaces_24_length: "int (length (concat sup_cond_spaces_24)) = 1200"
  unfolding rows_length sup_cond_spaces_24_def by (simp only: row_arith)

lemma sup_cond_spaces_25_length: "int (length (concat sup_cond_spaces_25)) = 1200"
  unfolding rows_length sup_cond_spaces_25_def by (simp only: row_arith)

lemma sup_cond_spaces_26_length: "int (length (concat sup_cond_spaces_26)) = 1200"
  unfolding rows_length sup_cond_spaces_26_def by (simp only: row_arith)

lemma sup_cond_spaces_27_length: "int (length (concat sup_cond_spaces_27)) = 1200"
  unfolding rows_length sup_cond_spaces_27_def by (simp only: row_arith)

lemma sup_cond_spaces_28_length: "int (length (concat sup_cond_spaces_28)) = 1200"
  unfolding rows_length sup_cond_spaces_28_def by (simp only: row_arith)

lemma sup_cond_spaces_29_length: "int (length (concat sup_cond_spaces_29)) = 1200"
  unfolding rows_length sup_cond_spaces_29_def by (simp only: row_arith)

lemma sup_cond_spaces_30_length: "int (length (concat sup_cond_spaces_30)) = 1200"
  unfolding rows_length sup_cond_spaces_30_def by (simp only: row_arith)

lemma sup_cond_spaces_31_length: "int (length (concat sup_cond_spaces_31)) = 1200"
  unfolding rows_length sup_cond_spaces_31_def by (simp only: row_arith)

lemma sup_cond_spaces_32_length: "int (length (concat sup_cond_spaces_32)) = 1200"
  unfolding rows_length sup_cond_spaces_32_def by (simp only: row_arith)

lemma sup_cond_spaces_33_length: "int (length (concat sup_cond_spaces_33)) = 1200"
  unfolding rows_length sup_cond_spaces_33_def by (simp only: row_arith)

lemma sup_cond_spaces_34_length: "int (length (concat sup_cond_spaces_34)) = 1200"
  unfolding rows_length sup_cond_spaces_34_def by (simp only: row_arith)

lemma sup_cond_spaces_35_length: "int (length (concat sup_cond_spaces_35)) = 1200"
  unfolding rows_length sup_cond_spaces_35_def by (simp only: row_arith)

lemma sup_cond_spaces_36_length: "int (length (concat sup_cond_spaces_36)) = 1200"
  unfolding rows_length sup_cond_spaces_36_def by (simp only: row_arith)

lemma sup_cond_spaces_37_length: "int (length (concat sup_cond_spaces_37)) = 1200"
  unfolding rows_length sup_cond_spaces_37_def by (simp only: row_arith)

lemma sup_cond_spaces_38_length: "int (length (concat sup_cond_spaces_38)) = 1200"
  unfolding rows_length sup_cond_spaces_38_def by (simp only: row_arith)

lemma sup_cond_spaces_39_length: "int (length (concat sup_cond_spaces_39)) = 1200"
  unfolding rows_length sup_cond_spaces_39_def by (simp only: row_arith)

lemma sup_cond_spaces_40_length: "int (length (concat sup_cond_spaces_40)) = 1200"
  unfolding rows_length sup_cond_spaces_40_def by (simp only: row_arith)

lemma sup_cond_spaces_41_length: "int (length (concat sup_cond_spaces_41)) = 1200"
  unfolding rows_length sup_cond_spaces_41_def by (simp only: row_arith)

lemma sup_cond_spaces_42_length: "int (length (concat sup_cond_spaces_42)) = 1200"
  unfolding rows_length sup_cond_spaces_42_def by (simp only: row_arith)

lemma sup_cond_spaces_43_length: "int (length (concat sup_cond_spaces_43)) = 1200"
  unfolding rows_length sup_cond_spaces_43_def by (simp only: row_arith)

lemma sup_cond_spaces_44_length: "int (length (concat sup_cond_spaces_44)) = 1200"
  unfolding rows_length sup_cond_spaces_44_def by (simp only: row_arith)

lemma sup_cond_spaces_45_length: "int (length (concat sup_cond_spaces_45)) = 1200"
  unfolding rows_length sup_cond_spaces_45_def by (simp only: row_arith)

lemma sup_cond_spaces_46_length: "int (length (concat sup_cond_spaces_46)) = 1200"
  unfolding rows_length sup_cond_spaces_46_def by (simp only: row_arith)

lemma sup_cond_spaces_47_length: "int (length (concat sup_cond_spaces_47)) = 1200"
  unfolding rows_length sup_cond_spaces_47_def by (simp only: row_arith)

lemma sup_cond_spaces_48_length: "int (length (concat sup_cond_spaces_48)) = 1170"
  unfolding rows_length sup_cond_spaces_48_def by (simp only: row_arith)

lemma sup_cond_spaces_length: "int (length sup_cond_spaces) = 57570"
  by (simp only: sup_cond_spaces_def length_append of_nat_add row_arith
      sup_cond_spaces_1_length sup_cond_spaces_2_length sup_cond_spaces_3_length
      sup_cond_spaces_4_length sup_cond_spaces_5_length sup_cond_spaces_6_length
      sup_cond_spaces_7_length sup_cond_spaces_8_length sup_cond_spaces_9_length
      sup_cond_spaces_10_length sup_cond_spaces_11_length sup_cond_spaces_12_length
      sup_cond_spaces_13_length sup_cond_spaces_14_length sup_cond_spaces_15_length
      sup_cond_spaces_16_length sup_cond_spaces_17_length sup_cond_spaces_18_length
      sup_cond_spaces_19_length sup_cond_spaces_20_length sup_cond_spaces_21_length
      sup_cond_spaces_22_length sup_cond_spaces_23_length sup_cond_spaces_24_length
      sup_cond_spaces_25_length sup_cond_spaces_26_length sup_cond_spaces_27_length
      sup_cond_spaces_28_length sup_cond_spaces_29_length sup_cond_spaces_30_length
      sup_cond_spaces_31_length sup_cond_spaces_32_length sup_cond_spaces_33_length
      sup_cond_spaces_34_length sup_cond_spaces_35_length sup_cond_spaces_36_length
      sup_cond_spaces_37_length sup_cond_spaces_38_length sup_cond_spaces_39_length
      sup_cond_spaces_40_length sup_cond_spaces_41_length sup_cond_spaces_42_length
      sup_cond_spaces_43_length sup_cond_spaces_44_length sup_cond_spaces_45_length
      sup_cond_spaces_46_length sup_cond_spaces_47_length sup_cond_spaces_48_length)

definition sup_trans_keys_1 :: "int list list" where
  "sup_trans_keys_1 =
    [[1033, 1037, 1056, 1057, 1058, 1061, 1063, 1084],
     [1150, 1619, 1620, 1651, 1652, 1875, 1876, 1907],
     [1908, 2131, 2132, 2163, 2164, 1066, 1067, 1069],
     [1070, 1072, 1081, 1119, 1120, 1601, 1626, 1633],
     [1658, 1857, 1882, 1889, 1914, 2113, 2138, 2145],
     [2170, 1033, 1037, 1056, 1084, 1034, 1033, 1056],
     [1033, 1056, 1084, 1107, 1108, 1139, 1140, 1089],
     [1114, 1121, 1146, 1067, 1082, 1069, 1070, 1072],
     [1081, 1089, 1114, 1121, 1146, 1057, 1059, 1061],
     [1071, 1082, 1086, 1088, 1115, 1119, 1150, 1060],
     [1083, 1085, 1114, 1121, 1146, 1057, 1059, 1061],
     [1082, 1086, 1088, 1119, 1150, 1060, 1083, 1085],
     [1114, 1121, 1146, 1057, 1061, 1082, 1085, 1088],
     [1119, 1150, 1059, 1083, 1087, 1114, 1121, 1146],
     [1072, 1081, 1089, 1094, 1121, 1126, 1072, 1081],
     [1089, 1094, 1121, 1126, 1057, 1061, 1085, 1088],
     [1119, 1150, 1060, 1070, 1072, 1081, 1089, 1114],
     [1121, 1146, 1072, 1081, 1089, 1094, 1121, 1126],
     [1072, 1081, 1089, 1094, 1121, 1126, 1072, 1073],
     [1074, 1115, 1075, 1081, 1089, 1114, 1121, 1146],
     [1069, 1070, 1119, 1072, 1081, 1089, 1114, 1121],
     [1146, 1069, 1119, 1072, 1081, 1089, 1114, 1121],
     [1146, 1069, 1070, 1119, 1072, 1081, 1089, 1114],
     [1121, 1146, 1072, 1081, 1089, 1114, 1121, 1146],
     [1069, 1070, 1082, 1086, 1087, 1119, 1072, 1081],
     [1089, 1114, 1121, 1146, 1069, 1119, 1072, 1081],
     [1089, 1114, 1121, 1146, 1082, 1086, 1087, 1072],
     [1081, 1089, 1114, 1121, 1146, 1072, 1078, 1073],
     [1077, 1079, 1081, 1072, 1073, 1081, 1072, 1073],
     [1081, 1073, 1081, 1086, 1087, 0, 1033, 1037],
     [1056, 1083, 1034, 1033, 1056, 0, 1033, 1037],
     [1056, 1083, 1034, 1033, 1056, 1033, 1056, 1083],
     [1033, 1037, 1056, 1057, 1061, 1063, 1150, 1066],
     [1067, 1069, 1070, 1072, 1081, 1089, 1114, 1119],
     [1146, 1034, 1033, 1056, 1033, 1056, 1057, 1061],
     [1063, 1150, 1066, 1067, 1069, 1070, 1072, 1081],
     [1089, 1114, 1119, 1146, 0, 1033, 1037, 1056],
     [1057, 1061, 1063, 1083, 1085, 1150, 1066, 1067],
     [1069, 1070, 1072, 1081, 1089, 1114, 1119, 1146],
     [1033, 1037, 1056, 1083, 1085, 1034, 1033, 1056],
     [1033, 1056, 1083, 1085, 1033, 1037, 1056, 1057],
     [1058, 1061, 1063, 1115, 1150, 1066, 1067, 1069],
     [1070, 1072, 1081, 1089, 1114, 1119, 1146, 1034],
     [1033, 1056, 1033, 1056, 1057, 1058, 1061, 1063],
     [1115, 1150, 1066, 1067, 1069, 1070, 1072, 1081],
     [1089, 1114, 1119, 1146, 0, 1033, 1037, 1056],
     [1057, 1061, 1063, 1083, 1150, 1066, 1067, 1069],
     [1070, 1072, 1081, 1089, 1114, 1119, 1146, 1033],
     [1037, 1056, 1083, 1033, 1037, 1058, 1116, 960],
     [991, 992, 1007, 1008, 1015, 1016, 1019, 1020],
     [1021, 1056, 1150, 896, 959, 896, 959, 896],
     [959, 896, 959, 896, 959, 1034, 1033, 1056],
     [0, 1033, 1037, 1056, 1083, 1024, 1033, 1035],
     [1036, 1038, 1151, 1082, 1072, 1081, 1089, 1094],
     [1121, 1126, 1082, 1072, 1081, 1089, 1094, 1121],
     [1126, 1082, 1072, 1081, 1089, 1094, 1121, 1126],
     [1082, 1072, 1081, 1089, 1094, 1121, 1126, 1082],
     [1082, 1072, 1081, 1089, 1094, 1121, 1126, 1082],
     [1072, 1081, 1089, 1094, 1121, 1126, 1082, 1072],
     [1081, 1089, 1094, 1121, 1126, 1082, 1072, 1081],
     [1089, 1094, 1121, 1126, 1082, 1082, 1072, 1081],
     [1089, 1094, 1121, 1126, 1082, 1072, 1081, 1089],
     [1094, 1121, 1126, 1082, 1072, 1081, 1089, 1094],
     [1121, 1126, 1082, 1072, 1081, 1089, 1094, 1121],
     [1126, 1082, 1082, 1072, 1081, 1089, 1094, 1121],
     [1126, 1082, 1072, 1081, 1089, 1094, 1121, 1126],
     [1082, 1072, 1081, 1089, 1094, 1121, 1126, 1082],
     [1072, 1081, 1089, 1094, 1121, 1126, 1082, 1082],
     [1072, 1081, 1089, 1094, 1121, 1126, 1082, 1072],
     [1081, 1089, 1094, 1121, 1126, 1082, 1072, 1081],
     [1089, 1094, 1121, 1126, 1082, 1072, 1081, 1089],
     [1094, 1121, 1126, 1082, 1082, 1072, 1081, 1089],
     [1094, 1121, 1126, 1082, 1072, 1081, 1089, 1094],
     [1121, 1126, 1082, 1072, 1081, 1089, 1094, 1121],
     [1126, 1082, 1072, 1081, 1089, 1094, 1121, 1126],
     [1082, 1072, 1073, 1074, 1082, 1075, 1081, 1089],
     [1094, 1121, 1126, 1070, 1082, 1072, 1081, 1089],
     [1094, 1121, 1126, 1072, 1073, 1074, 1075, 1081],
     [1070, 1072, 1073, 1074, 1075, 1081, 1070, 1072],
     [1073, 1074, 1075, 1081, 1117, 1117, 1072, 1081],
     [1117, 1072, 1081, 1077, 1117, 1072, 1076, 1078],
     [1081, 1117, 1072, 1077, 1070, 1072, 1081, 1070],
     [1072, 1081, 1070, 1077, 1072, 1076, 1078, 1081],
     [1070, 1072, 1077, 1070, 1072, 1081, 1070, 1072],
     [1081, 1070, 1077, 1072, 1076, 1078, 1081, 1070],
     [1072, 1077, 1082, 1072, 1081, 1089, 1094, 1121],
     [1126, 1082, 1072, 1081, 1089, 1094, 1121, 1126],
     [1082, 1082, 1072, 1081, 1089, 1094, 1121, 1126],
     [1117, 1072, 1081, 1089, 1094, 1121, 1126, 1117],
     [1072, 1081, 1089, 1094, 1121, 1126, 1117, 1072],
     [1081, 1089, 1094, 1121, 1126, 1070, 1082, 1072],
     [1081, 1089, 1094, 1121, 1126, 1070, 1082, 1072],
     [1081, 1089, 1094, 1121, 1126, 1070, 1082, 1072],
     [1081, 1089, 1094, 1121, 1126, 1070, 1077, 1082],
     [1072, 1076, 1078, 1081, 1089, 1094, 1121, 1126],
     [1070, 1082, 1072, 1077, 1078, 1081, 1089, 1094],
     [1121, 1126, 1070, 1082, 1072, 1081, 1089, 1094],
     [1121, 1126, 1070, 1082, 1072, 1081, 1089, 1094],
     [1121, 1126, 1117, 1072, 1081, 1089, 1094, 1121],
     [1126, 1082, 1072, 1081, 1089, 1094, 1121, 1126],
     [1072, 1073, 1074, 1117, 1075, 1081, 1089, 1094],
     [1121, 1126, 1070, 1082, 1117, 1072, 1081, 1089],
     [1094, 1121, 1126, 1082, 1117, 1072, 1081, 1089],
     [1094, 1121, 1126, 1082, 1117, 1072, 1081, 1089],
     [1094, 1121, 1126, 1082, 1117, 1072, 1081, 1089],
     [1094, 1121, 1126, 1070, 1082, 1117, 1072, 1081],
     [1089, 1094, 1121, 1126, 1070, 1082, 1117, 1072],
     [1081, 1089, 1094, 1121, 1126, 1070, 1082, 1117],
     [1072, 1081, 1089, 1094, 1121, 1126, 1070, 1077],
     [1082, 1117, 1072, 1076, 1078, 1081, 1089, 1094],
     [1121, 1126, 1070, 1082, 1117, 1072, 1077, 1078],
     [1081, 1089, 1094, 1121, 1126, 1070, 1082, 1117],
     [1072, 1081, 1089, 1094, 1121, 1126, 1070, 1082],
     [1117, 1072, 1081, 1089, 1094, 1121, 1126, 1082],
     [1117, 1072, 1081, 1089, 1094, 1121, 1126, 1072],
     [1073, 1074, 1117, 1075, 1081, 1089, 1094, 1121],
     [1126, 1070, 1082, 1117, 1072, 1081, 1089, 1094],
     [1121, 1126, 1082, 1117, 1072, 1081, 1089, 1094],
     [1121, 1126, 1082, 1117, 1072, 1081, 1089, 1094],
     [1121, 1126, 1082, 1117, 1072, 1073, 1074, 1075],
     [1081, 1089, 1094, 1121, 1126, 1070, 1082, 1117],
     [1072, 1081, 1089, 1094, 1121, 1126, 1070, 1082],
     [1117, 1072, 1081, 1089, 1094, 1121, 1126, 1070],
     [1082, 1117, 1072, 1081, 1089, 1094, 1121, 1126],
     [1070, 1077, 1082, 1117, 1072, 1076, 1078, 1081],
     [1089, 1094, 1121, 1126, 1070, 1082, 1117, 1072],
     [1077, 1078, 1081, 1089, 1094, 1121, 1126, 1070],
     [1082, 1117, 1072, 1081, 1089, 1094, 1121, 1126],
     [1070, 1082, 1117, 1072, 1081, 1089, 1094, 1121],
     [1126, 1082, 1117, 1072, 1081, 1089, 1094, 1121],
     [1126, 1072, 1073, 1074, 1117, 1075, 1081, 1089],
     [1094, 1121, 1126, 1070, 1082, 1117, 1072, 1081],
     [1089, 1094, 1121, 1126, 1082, 1117, 1072, 1081],
     [1089, 1094, 1121, 1126, 1082, 1117, 1072, 1081],
     [1089, 1094, 1121, 1126, 1082, 1117, 1072, 1073],
     [1074, 1075, 1081, 1089, 1094, 1121, 1126, 1070],
     [1082, 1117, 1072, 1081, 1089, 1094, 1121, 1126],
     [1070, 1082, 1117, 1072, 1081, 1089, 1094, 1121],
     [1126, 1070, 1082, 1117, 1072, 1081, 1089, 1094],
     [1121, 1126, 1070, 1077, 1082, 1117, 1072, 1076],
     [1078, 1081, 1089, 1094, 1121, 1126, 1070, 1082],
     [1117, 1072, 1077, 1078, 1081, 1089, 1094, 1121],
     [1126, 1070, 1082, 1117, 1072, 1081, 1089, 1094],
     [1121, 1126, 1070, 1082, 1117, 1072, 1081, 1089],
     [1094, 1121, 1126, 1082, 1117, 1072, 1081, 1089],
     [1094, 1121, 1126, 1072, 1073, 1074, 1117, 1075],
     [1081, 1089, 1094, 1121, 1126, 1070, 1082, 1117],
     [1072, 1081, 1089, 1094, 1121, 1126, 1082, 1117],
     [1072, 1081, 1089, 1094, 1121, 1126, 1082, 1117],
     [1072, 1081, 1089, 1094, 1121, 1126, 1082, 1117]]"

definition sup_trans_keys_2 :: "int list list" where
  "sup_trans_keys_2 =
    [[1072, 1073, 1074, 1075, 1081, 1089, 1094, 1121],
     [1126, 1070, 1082, 1117, 1072, 1081, 1089, 1094],
     [1121, 1126, 1070, 1082, 1117, 1072, 1081, 1089],
     [1094, 1121, 1126, 1070, 1082, 1117, 1072, 1081],
     [1089, 1094, 1121, 1126, 1070, 1077, 1082, 1117],
     [1072, 1076, 1078, 1081, 1089, 1094, 1121, 1126],
     [1070, 1082, 1117, 1072, 1077, 1078, 1081, 1089],
     [1094, 1121, 1126, 1070, 1082, 1117, 1072, 1081],
     [1089, 1094, 1121, 1126, 1070, 1082, 1117, 1072],
     [1081, 1089, 1094, 1121, 1126, 1082, 1117, 1072],
     [1081, 1089, 1094, 1121, 1126, 1072, 1073, 1074],
     [1117, 1075, 1081, 1089, 1094, 1121, 1126, 1070],
     [1082, 1117, 1072, 1081, 1089, 1094, 1121, 1126],
     [1082, 1117, 1072, 1081, 1089, 1094, 1121, 1126],
     [1082, 1117, 1072, 1081, 1089, 1094, 1121, 1126],
     [1082, 1117, 1072, 1073, 1074, 1075, 1081, 1089],
     [1094, 1121, 1126, 1070, 1082, 1117, 1072, 1081],
     [1089, 1094, 1121, 1126, 1070, 1082, 1117, 1072],
     [1081, 1089, 1094, 1121, 1126, 1070, 1082, 1117],
     [1072, 1081, 1089, 1094, 1121, 1126, 1070, 1077],
     [1082, 1117, 1072, 1076, 1078, 1081, 1089, 1094],
     [1121, 1126, 1070, 1082, 1117, 1072, 1077, 1078],
     [1081, 1089, 1094, 1121, 1126, 1070, 1082, 1117],
     [1072, 1081, 1089, 1094, 1121, 1126, 1070, 1082],
     [1117, 1072, 1081, 1089, 1094, 1121, 1126, 1082],
     [1117, 1072, 1081, 1089, 1094, 1121, 1126, 1082],
     [1072, 1073, 1074, 1117, 1075, 1081, 1089, 1094],
     [1121, 1126, 1070, 1082, 1117, 1072, 1081, 1089],
     [1094, 1121, 1126, 1082, 1117, 1072, 1081, 1089],
     [1094, 1121, 1126, 1082, 1117, 1072, 1081, 1089],
     [1094, 1121, 1126, 1082, 1117, 1072, 1073, 1074],
     [1075, 1081, 1089, 1094, 1121, 1126, 1070, 1082],
     [1117, 1072, 1081, 1089, 1094, 1121, 1126, 1070],
     [1082, 1117, 1072, 1081, 1089, 1094, 1121, 1126],
     [1070, 1082, 1117, 1072, 1081, 1089, 1094, 1121],
     [1126, 1070, 1077, 1082, 1117, 1072, 1076, 1078],
     [1081, 1089, 1094, 1121, 1126, 1070, 1082, 1117],
     [1072, 1077, 1078, 1081, 1089, 1094, 1121, 1126],
     [1070, 1082, 1117, 1072, 1081, 1089, 1094, 1121],
     [1126, 1070, 1082, 1117, 1072, 1081, 1089, 1094],
     [1121, 1126, 1082, 1117, 1072, 1081, 1089, 1094],
     [1121, 1126, 1057, 1061, 1086, 1119, 1150, 1060],
     [1083, 1085, 1114, 1121, 1146, 1072, 1081, 1089],
     [1094, 1121, 1126, 1072, 1081, 1089, 1094, 1121],
     [1126, 1086, 1087, 1072, 1081, 1086, 1087, 1072],
     [1081, 1086, 1087, 1072, 1081, 1086, 1087, 1072],
     [1081, 1077, 1086, 1087, 1072, 1076, 1078, 1081],
     [1077, 1086, 1087, 1072, 1076, 1078, 1081, 1075],
     [1086, 1087, 1072, 1074, 1076, 1081, 1086, 1087],
     [1072, 1077, 1072, 1073, 1074, 1075, 1081, 1089],
     [1114, 1121, 1146, 1069, 1070, 1119, 1072, 1081],
     [1089, 1114, 1121, 1146, 1072, 1073, 1074, 1075],
     [1081, 1089, 1114, 1121, 1146, 1069, 1070, 1119],
     [1072, 1081, 1089, 1114, 1121, 1146, 1072, 1073],
     [1074, 1075, 1081, 1089, 1114, 1121, 1146, 1069],
     [1070, 1082, 1086, 1087, 1119, 1072, 1081, 1089],
     [1114, 1121, 1146, 1069, 1070, 1082, 1086, 1087],
     [1119, 1072, 1081, 1089, 1114, 1121, 1146, 1069],
     [1070, 1082, 1086, 1087, 1119, 1072, 1081, 1089],
     [1114, 1121, 1146, 1069, 1070, 1077, 1082, 1086],
     [1087, 1119, 1072, 1076, 1078, 1081, 1089, 1114],
     [1121, 1146, 1069, 1070, 1082, 1086, 1087, 1119],
     [1072, 1077, 1078, 1081, 1089, 1114, 1121, 1146],
     [1069, 1070, 1119, 1072, 1081, 1089, 1114, 1121],
     [1146, 1069, 1070, 1119, 1072, 1081, 1089, 1114],
     [1121, 1146, 1069, 1070, 1077, 1119, 1072, 1076],
     [1078, 1081, 1089, 1114, 1121, 1146, 1069, 1070],
     [1119, 1072, 1077, 1078, 1081, 1089, 1114, 1121],
     [1146, 1069, 1070, 1119, 1072, 1081, 1089, 1114],
     [1121, 1146, 1069, 1070, 1119, 1072, 1081, 1089],
     [1114, 1121, 1146, 1069, 1070, 1077, 1119, 1072],
     [1076, 1078, 1081, 1089, 1114, 1121, 1146, 1069],
     [1070, 1119, 1072, 1077, 1078, 1081, 1089, 1114],
     [1121, 1146, 1069, 1070, 1119, 1072, 1081, 1089],
     [1114, 1121, 1146, 1069, 1070, 1119, 1072, 1081],
     [1089, 1114, 1121, 1146, 1069, 1070, 1077, 1119],
     [1072, 1076, 1078, 1081, 1089, 1114, 1121, 1146],
     [1069, 1070, 1119, 1072, 1077, 1078, 1081, 1089],
     [1114, 1121, 1146, 1082, 1072, 1081, 1089, 1094],
     [1121, 1126, 1082, 1072, 1081, 1089, 1094, 1121],
     [1126, 1082, 1072, 1081, 1089, 1094, 1121, 1126],
     [1082, 1072, 1081, 1089, 1094, 1121, 1126, 1082],
     [1082, 1072, 1081, 1089, 1094, 1121, 1126, 1082],
     [1072, 1081, 1089, 1094, 1121, 1126, 1082, 1072],
     [1081, 1089, 1094, 1121, 1126, 1082, 1072, 1081],
     [1089, 1094, 1121, 1126, 1082, 1082, 1072, 1081],
     [1089, 1094, 1121, 1126, 1082, 1072, 1081, 1089],
     [1094, 1121, 1126, 1082, 1072, 1081, 1089, 1094],
     [1121, 1126, 1082, 1072, 1081, 1089, 1094, 1121],
     [1126, 1082, 1082, 1072, 1081, 1089, 1094, 1121],
     [1126, 1082, 1072, 1081, 1089, 1094, 1121, 1126],
     [1082, 1072, 1081, 1089, 1094, 1121, 1126, 1082],
     [1072, 1081, 1089, 1094, 1121, 1126, 1082, 1082],
     [1072, 1081, 1089, 1094, 1121, 1126, 1082, 1072],
     [1081, 1089, 1094, 1121, 1126, 1082, 1072, 1081],
     [1089, 1094, 1121, 1126, 1082, 1072, 1081, 1089],
     [1094, 1121, 1126, 1082, 1082, 1072, 1081, 1089],
     [1094, 1121, 1126, 1082, 1072, 1081, 1089, 1094],
     [1121, 1126, 1082, 1072, 1081, 1089, 1094, 1121],
     [1126, 1082, 1072, 1081, 1089, 1094, 1121, 1126],
     [1082, 1072, 1073, 1074, 1082, 1075, 1081, 1089],
     [1094, 1121, 1126, 1070, 1082, 1072, 1081, 1089],
     [1094, 1121, 1126, 1072, 1073, 1074, 1075, 1081],
     [1070, 1072, 1073, 1074, 1075, 1081, 1070, 1072],
     [1073, 1074, 1075, 1081, 1117, 1082, 1086, 1087],
     [1117, 1072, 1081, 1117, 1072, 1081, 1077, 1117],
     [1072, 1076, 1078, 1081, 1117, 1072, 1077, 1070],
     [1072, 1081, 1070, 1072, 1081, 1070, 1077, 1072],
     [1076, 1078, 1081, 1070, 1072, 1077, 1070, 1072],
     [1081, 1070, 1072, 1081, 1070, 1077, 1072, 1076],
     [1078, 1081, 1070, 1072, 1077, 1082, 1072, 1081],
     [1089, 1094, 1121, 1126, 1082, 1072, 1081, 1089],
     [1094, 1121, 1126, 1082, 1082, 1072, 1081, 1089],
     [1094, 1121, 1126, 1117, 1072, 1081, 1089, 1094],
     [1121, 1126, 1117, 1072, 1081, 1089, 1094, 1121],
     [1126, 1117, 1072, 1081, 1089, 1094, 1121, 1126],
     [1070, 1082, 1072, 1081, 1089, 1094, 1121, 1126],
     [1070, 1082, 1072, 1081, 1089, 1094, 1121, 1126],
     [1070, 1082, 1072, 1081, 1089, 1094, 1121, 1126],
     [1070, 1077, 1082, 1072, 1076, 1078, 1081, 1089],
     [1094, 1121, 1126, 1070, 1082, 1072, 1077, 1078],
     [1081, 1089, 1094, 1121, 1126, 1070, 1082, 1072],
     [1081, 1089, 1094, 1121, 1126, 1070, 1082, 1072],
     [1081, 1089, 1094, 1121, 1126, 1117, 1072, 1081],
     [1089, 1094, 1121, 1126, 1082, 1072, 1081, 1089],
     [1094, 1121, 1126, 1072, 1073, 1074, 1117, 1075],
     [1081, 1089, 1094, 1121, 1126, 1070, 1082, 1117],
     [1072, 1081, 1089, 1094, 1121, 1126, 1082, 1117],
     [1072, 1081, 1089, 1094, 1121, 1126, 1082, 1117],
     [1072, 1081, 1089, 1094, 1121, 1126, 1082, 1117],
     [1072, 1081, 1089, 1094, 1121, 1126, 1070, 1082],
     [1117, 1072, 1081, 1089, 1094, 1121, 1126, 1070],
     [1082, 1117, 1072, 1081, 1089, 1094, 1121, 1126],
     [1070, 1082, 1117, 1072, 1081, 1089, 1094, 1121],
     [1126, 1070, 1077, 1082, 1117, 1072, 1076, 1078],
     [1081, 1089, 1094, 1121, 1126, 1070, 1082, 1117],
     [1072, 1077, 1078, 1081, 1089, 1094, 1121, 1126],
     [1070, 1082, 1117, 1072, 1081, 1089, 1094, 1121],
     [1126, 1070, 1082, 1117, 1072, 1081, 1089, 1094],
     [1121, 1126, 1082, 1117, 1072, 1081, 1089, 1094],
     [1121, 1126, 1072, 1073, 1074, 1117, 1075, 1081],
     [1089, 1094, 1121, 1126, 1070, 1082, 1117, 1072],
     [1081, 1089, 1094, 1121, 1126, 1082, 1117, 1072],
     [1081, 1089, 1094, 1121, 1126, 1082, 1117, 1072],
     [1081, 1089, 1094, 1121, 1126, 1082, 1117, 1072],
     [1073, 1074, 1075, 1081, 1089, 1094, 1121, 1126],
     [1070, 1082, 1117, 1072, 1081, 1089, 1094, 1121],
     [1126, 1070, 1082, 1117, 1072, 1081, 1089, 1094],
     [1121, 1126, 1070, 1082, 1117, 1072, 1081, 1089],
     [1094, 1121, 1126, 1070, 1077, 1082, 1117, 1072]]"

definition sup_trans_keys_3 :: "int list list" where
  "sup_trans_keys_3 =
    [[1076, 1078, 1081, 1089, 1094, 1121, 1126, 1070],
     [1082, 1117, 1072, 1077, 1078, 1081, 1089, 1094],
     [1121, 1126, 1070, 1082, 1117, 1072, 1081, 1089],
     [1094, 1121, 1126, 1070, 1082, 1117, 1072, 1081],
     [1089, 1094, 1121, 1126, 1082, 1117, 1072, 1081],
     [1089, 1094, 1121, 1126, 1072, 1073, 1074, 1117],
     [1075, 1081, 1089, 1094, 1121, 1126, 1070, 1082],
     [1117, 1072, 1081, 1089, 1094, 1121, 1126, 1082],
     [1117, 1072, 1081, 1089, 1094, 1121, 1126, 1082],
     [1117, 1072, 1081, 1089, 1094, 1121, 1126, 1082],
     [1117, 1072, 1073, 1074, 1075, 1081, 1089, 1094],
     [1121, 1126, 1070, 1082, 1117, 1072, 1081, 1089],
     [1094, 1121, 1126, 1070, 1082, 1117, 1072, 1081],
     [1089, 1094, 1121, 1126, 1070, 1082, 1117, 1072],
     [1081, 1089, 1094, 1121, 1126, 1070, 1077, 1082],
     [1117, 1072, 1076, 1078, 1081, 1089, 1094, 1121],
     [1126, 1070, 1082, 1117, 1072, 1077, 1078, 1081],
     [1089, 1094, 1121, 1126, 1070, 1082, 1117, 1072],
     [1081, 1089, 1094, 1121, 1126, 1070, 1082, 1117],
     [1072, 1081, 1089, 1094, 1121, 1126, 1082, 1117],
     [1072, 1081, 1089, 1094, 1121, 1126, 1072, 1073],
     [1074, 1117, 1075, 1081, 1089, 1094, 1121, 1126],
     [1070, 1082, 1117, 1072, 1081, 1089, 1094, 1121],
     [1126, 1082, 1117, 1072, 1081, 1089, 1094, 1121],
     [1126, 1082, 1117, 1072, 1081, 1089, 1094, 1121],
     [1126, 1082, 1117, 1072, 1073, 1074, 1075, 1081],
     [1089, 1094, 1121, 1126, 1070, 1082, 1117, 1072],
     [1081, 1089, 1094, 1121, 1126, 1070, 1082, 1117],
     [1072, 1081, 1089, 1094, 1121, 1126, 1070, 1082],
     [1117, 1072, 1081, 1089, 1094, 1121, 1126, 1070],
     [1077, 1082, 1117, 1072, 1076, 1078, 1081, 1089],
     [1094, 1121, 1126, 1070, 1082, 1117, 1072, 1077],
     [1078, 1081, 1089, 1094, 1121, 1126, 1070, 1082],
     [1117, 1072, 1081, 1089, 1094, 1121, 1126, 1070],
     [1082, 1117, 1072, 1081, 1089, 1094, 1121, 1126],
     [1082, 1117, 1072, 1081, 1089, 1094, 1121, 1126],
     [1072, 1073, 1074, 1117, 1075, 1081, 1089, 1094],
     [1121, 1126, 1070, 1082, 1117, 1072, 1081, 1089],
     [1094, 1121, 1126, 1082, 1117, 1072, 1081, 1089],
     [1094, 1121, 1126, 1082, 1117, 1072, 1081, 1089],
     [1094, 1121, 1126, 1082, 1117, 1072, 1073, 1074],
     [1075, 1081, 1089, 1094, 1121, 1126, 1070, 1082],
     [1117, 1072, 1081, 1089, 1094, 1121, 1126, 1070],
     [1082, 1117, 1072, 1081, 1089, 1094, 1121, 1126],
     [1070, 1082, 1117, 1072, 1081, 1089, 1094, 1121],
     [1126, 1070, 1077, 1082, 1117, 1072, 1076, 1078],
     [1081, 1089, 1094, 1121, 1126, 1070, 1082, 1117],
     [1072, 1077, 1078, 1081, 1089, 1094, 1121, 1126],
     [1070, 1082, 1117, 1072, 1081, 1089, 1094, 1121],
     [1126, 1070, 1082, 1117, 1072, 1081, 1089, 1094],
     [1121, 1126, 1082, 1117, 1072, 1081, 1089, 1094],
     [1121, 1126, 1082, 1072, 1073, 1074, 1117, 1075],
     [1081, 1089, 1094, 1121, 1126, 1070, 1082, 1117],
     [1072, 1081, 1089, 1094, 1121, 1126, 1082, 1117],
     [1072, 1081, 1089, 1094, 1121, 1126, 1082, 1117],
     [1072, 1081, 1089, 1094, 1121, 1126, 1082, 1117],
     [1072, 1073, 1074, 1075, 1081, 1089, 1094, 1121],
     [1126, 1070, 1082, 1117, 1072, 1081, 1089, 1094],
     [1121, 1126, 1070, 1082, 1117, 1072, 1081, 1089],
     [1094, 1121, 1126, 1070, 1082, 1117, 1072, 1081],
     [1089, 1094, 1121, 1126, 1070, 1077, 1082, 1117],
     [1072, 1076, 1078, 1081, 1089, 1094, 1121, 1126],
     [1070, 1082, 1117, 1072, 1077, 1078, 1081, 1089],
     [1094, 1121, 1126, 1070, 1082, 1117, 1072, 1081],
     [1089, 1094, 1121, 1126, 1070, 1082, 1117, 1072],
     [1081, 1089, 1094, 1121, 1126, 1082, 1117, 1072],
     [1081, 1089, 1094, 1121, 1126, 1072, 1081, 1089],
     [1094, 1121, 1126, 1072, 1081, 1089, 1094, 1121],
     [1126, 1057, 1061, 1071, 1086, 1087, 1088, 1119],
     [1150, 1060, 1081, 1082, 1083, 1085, 1114, 1121],
     [1146, 1072, 1081, 1089, 1094, 1121, 1126, 1072],
     [1081, 1089, 1094, 1121, 1126, 1057, 1061, 1086],
     [1115, 1119, 1150, 1060, 1083, 1085, 1114, 1121],
     [1146, 1057, 1059, 1061, 1071, 1082, 1086, 1088],
     [1119, 1150, 1060, 1083, 1085, 1114, 1121, 1146],
     [1057, 1059, 1061, 1082, 1086, 1088, 1115, 1119],
     [1150, 1060, 1083, 1085, 1114, 1121, 1146, 1057],
     [1059, 1061, 1082, 1086, 1088, 1119, 1150, 1060],
     [1083, 1085, 1114, 1121, 1146, 1057, 1061, 1082],
     [1085, 1088, 1119, 1150, 1059, 1083, 1087, 1114],
     [1121, 1146, 1072, 1081, 1089, 1094, 1121, 1126],
     [1072, 1081, 1089, 1094, 1121, 1126, 1057, 1061],
     [1085, 1088, 1119, 1150, 1060, 1070, 1072, 1081],
     [1089, 1114, 1121, 1146, 1072, 1081, 1089, 1094],
     [1121, 1126, 1072, 1081, 1089, 1094, 1121, 1126],
     [1072, 1073, 1074, 1115, 1075, 1081, 1089, 1114],
     [1121, 1146, 1069, 1070, 1119, 1072, 1081, 1089],
     [1114, 1121, 1146, 1069, 1119, 1072, 1081, 1089],
     [1114, 1121, 1146, 1069, 1070, 1119, 1072, 1081],
     [1089, 1114, 1121, 1146, 1072, 1081, 1089, 1114],
     [1121, 1146, 1069, 1070, 1071, 1082, 1086, 1087],
     [1119, 1072, 1081, 1089, 1114, 1121, 1146, 1069],
     [1119, 1072, 1081, 1089, 1114, 1121, 1146, 1071],
     [1082, 1086, 1087, 1072, 1081, 1089, 1114, 1121],
     [1146, 1072, 1078, 1073, 1077, 1079, 1081, 1072],
     [1073, 1081, 1072, 1073, 1081, 1073, 1081, 1071],
     [1086, 1087, 1071, 1086, 1087, 1072, 1081, 1071],
     [1086, 1087, 1072, 1081, 1071, 1086, 1087, 1072],
     [1081, 1071, 1086, 1087, 1072, 1081, 1071, 1077],
     [1086, 1087, 1072, 1076, 1078, 1081, 1071, 1077],
     [1086, 1087, 1072, 1076, 1078, 1081, 1071, 1075],
     [1086, 1087, 1072, 1074, 1076, 1081, 1071, 1086],
     [1087, 1072, 1077, 1072, 1073, 1074, 1075, 1081],
     [1089, 1114, 1121, 1146, 1069, 1070, 1119, 1072],
     [1081, 1089, 1114, 1121, 1146, 1072, 1073, 1074],
     [1075, 1081, 1089, 1114, 1121, 1146, 1069, 1070],
     [1119, 1072, 1081, 1089, 1114, 1121, 1146, 1072],
     [1073, 1074, 1075, 1081, 1089, 1114, 1121, 1146],
     [1069, 1070, 1071, 1082, 1086, 1087, 1119, 1072],
     [1081, 1089, 1114, 1121, 1146, 1069, 1070, 1071],
     [1082, 1086, 1087, 1119, 1072, 1081, 1089, 1114],
     [1121, 1146, 1069, 1070, 1071, 1082, 1086, 1087],
     [1119, 1072, 1081, 1089, 1114, 1121, 1146, 1069],
     [1070, 1071, 1077, 1082, 1086, 1087, 1119, 1072],
     [1076, 1078, 1081, 1089, 1114, 1121, 1146, 1069],
     [1070, 1071, 1082, 1086, 1087, 1119, 1072, 1077],
     [1078, 1081, 1089, 1114, 1121, 1146, 1069, 1070],
     [1119, 1072, 1081, 1089, 1114, 1121, 1146, 1069],
     [1070, 1119, 1072, 1081, 1089, 1114, 1121, 1146],
     [1069, 1070, 1077, 1119, 1072, 1076, 1078, 1081],
     [1089, 1114, 1121, 1146, 1069, 1070, 1119, 1072],
     [1077, 1078, 1081, 1089, 1114, 1121, 1146, 1069],
     [1070, 1119, 1072, 1081, 1089, 1114, 1121, 1146],
     [1069, 1070, 1119, 1072, 1081, 1089, 1114, 1121],
     [1146, 1069, 1070, 1077, 1119, 1072, 1076, 1078],
     [1081, 1089, 1114, 1121, 1146, 1069, 1070, 1119],
     [1072, 1077, 1078, 1081, 1089, 1114, 1121, 1146],
     [1069, 1070, 1119, 1072, 1081, 1089, 1114, 1121],
     [1146, 1069, 1070, 1119, 1072, 1081, 1089, 1114],
     [1121, 1146, 1069, 1070, 1077, 1119, 1072, 1076],
     [1078, 1081, 1089, 1114, 1121, 1146, 1069, 1070],
     [1119, 1072, 1077, 1078, 1081, 1089, 1114, 1121],
     [1146, 1082, 1072, 1081, 1089, 1094, 1121, 1126],
     [1082, 1072, 1081, 1089, 1094, 1121, 1126, 1082],
     [1072, 1081, 1089, 1094, 1121, 1126, 1082, 1072],
     [1081, 1089, 1094, 1121, 1126, 1082, 1082, 1072],
     [1081, 1089, 1094, 1121, 1126, 1082, 1072, 1081],
     [1089, 1094, 1121, 1126, 1082, 1072, 1081, 1089],
     [1094, 1121, 1126, 1082, 1072, 1081, 1089, 1094],
     [1121, 1126, 1082, 1082, 1072, 1081, 1089, 1094],
     [1121, 1126, 1082, 1072, 1081, 1089, 1094, 1121],
     [1126, 1082, 1072, 1081, 1089, 1094, 1121, 1126],
     [1082, 1072, 1081, 1089, 1094, 1121, 1126, 1082],
     [1082, 1072, 1081, 1089, 1094, 1121, 1126, 1082],
     [1072, 1081, 1089, 1094, 1121, 1126, 1082, 1072],
     [1081, 1089, 1094, 1121, 1126, 1082, 1072, 1081],
     [1089, 1094, 1121, 1126, 1082, 1082, 1072, 1081],
     [1089, 1094, 1121, 1126, 1082, 1072, 1081, 1089],
     [1094, 1121, 1126, 1082, 1072, 1081, 1089, 1094],
     [1121, 1126, 1082, 1072, 1081, 1089, 1094, 1121]]"

definition sup_trans_keys_4 :: "int list list" where
  "sup_trans_keys_4 =
    [[1126, 1082, 1082, 1072, 1081, 1089, 1094, 1121],
     [1126, 1082, 1072, 1081, 1089, 1094, 1121, 1126],
     [1082, 1072, 1081, 1089, 1094, 1121, 1126, 1082],
     [1072, 1081, 1089, 1094, 1121, 1126, 1082, 1072],
     [1073, 1074, 1082, 1075, 1081, 1089, 1094, 1121],
     [1126, 1070, 1082, 1072, 1081, 1089, 1094, 1121],
     [1126, 1072, 1073, 1074, 1075, 1081, 1070, 1072],
     [1073, 1074, 1075, 1081, 1070, 1072, 1073, 1074],
     [1075, 1081, 1117, 1071, 1082, 1086, 1087, 1117],
     [1072, 1081, 1117, 1072, 1081, 1077, 1117, 1072],
     [1076, 1078, 1081, 1117, 1072, 1077, 1070, 1072],
     [1081, 1070, 1072, 1081, 1070, 1077, 1072, 1076],
     [1078, 1081, 1070, 1072, 1077, 1070, 1072, 1081],
     [1070, 1072, 1081, 1070, 1077, 1072, 1076, 1078],
     [1081, 1070, 1072, 1077, 1082, 1072, 1081, 1089],
     [1094, 1121, 1126, 1082, 1072, 1081, 1089, 1094],
     [1121, 1126, 1082, 1082, 1072, 1081, 1089, 1094],
     [1121, 1126, 1117, 1072, 1081, 1089, 1094, 1121],
     [1126, 1117, 1072, 1081, 1089, 1094, 1121, 1126],
     [1117, 1072, 1081, 1089, 1094, 1121, 1126, 1070],
     [1082, 1072, 1081, 1089, 1094, 1121, 1126, 1070],
     [1082, 1072, 1081, 1089, 1094, 1121, 1126, 1070],
     [1082, 1072, 1081, 1089, 1094, 1121, 1126, 1070],
     [1077, 1082, 1072, 1076, 1078, 1081, 1089, 1094],
     [1121, 1126, 1070, 1082, 1072, 1077, 1078, 1081],
     [1089, 1094, 1121, 1126, 1070, 1082, 1072, 1081],
     [1089, 1094, 1121, 1126, 1070, 1082, 1072, 1081],
     [1089, 1094, 1121, 1126, 1117, 1072, 1081, 1089],
     [1094, 1121, 1126, 1082, 1072, 1081, 1089, 1094],
     [1121, 1126, 1072, 1073, 1074, 1117, 1075, 1081],
     [1089, 1094, 1121, 1126, 1070, 1082, 1117, 1072],
     [1081, 1089, 1094, 1121, 1126, 1082, 1117, 1072],
     [1081, 1089, 1094, 1121, 1126, 1082, 1117, 1072],
     [1081, 1089, 1094, 1121, 1126, 1082, 1117, 1072],
     [1081, 1089, 1094, 1121, 1126, 1070, 1082, 1117],
     [1072, 1081, 1089, 1094, 1121, 1126, 1070, 1082],
     [1117, 1072, 1081, 1089, 1094, 1121, 1126, 1070],
     [1082, 1117, 1072, 1081, 1089, 1094, 1121, 1126],
     [1070, 1077, 1082, 1117, 1072, 1076, 1078, 1081],
     [1089, 1094, 1121, 1126, 1070, 1082, 1117, 1072],
     [1077, 1078, 1081, 1089, 1094, 1121, 1126, 1070],
     [1082, 1117, 1072, 1081, 1089, 1094, 1121, 1126],
     [1070, 1082, 1117, 1072, 1081, 1089, 1094, 1121],
     [1126, 1082, 1117, 1072, 1081, 1089, 1094, 1121],
     [1126, 1072, 1073, 1074, 1117, 1075, 1081, 1089],
     [1094, 1121, 1126, 1070, 1082, 1117, 1072, 1081],
     [1089, 1094, 1121, 1126, 1082, 1117, 1072, 1081],
     [1089, 1094, 1121, 1126, 1082, 1117, 1072, 1081],
     [1089, 1094, 1121, 1126, 1082, 1117, 1072, 1073],
     [1074, 1075, 1081, 1089, 1094, 1121, 1126, 1070],
     [1082, 1117, 1072, 1081, 1089, 1094, 1121, 1126],
     [1070, 1082, 1117, 1072, 1081, 1089, 1094, 1121],
     [1126, 1070, 1082, 1117, 1072, 1081, 1089, 1094],
     [1121, 1126, 1070, 1077, 1082, 1117, 1072, 1076],
     [1078, 1081, 1089, 1094, 1121, 1126, 1070, 1082],
     [1117, 1072, 1077, 1078, 1081, 1089, 1094, 1121],
     [1126, 1070, 1082, 1117, 1072, 1081, 1089, 1094],
     [1121, 1126, 1070, 1082, 1117, 1072, 1081, 1089],
     [1094, 1121, 1126, 1082, 1117, 1072, 1081, 1089],
     [1094, 1121, 1126, 1072, 1073, 1074, 1117, 1075],
     [1081, 1089, 1094, 1121, 1126, 1070, 1082, 1117],
     [1072, 1081, 1089, 1094, 1121, 1126, 1082, 1117],
     [1072, 1081, 1089, 1094, 1121, 1126, 1082, 1117],
     [1072, 1081, 1089, 1094, 1121, 1126, 1082, 1117],
     [1072, 1073, 1074, 1075, 1081, 1089, 1094, 1121],
     [1126, 1070, 1082, 1117, 1072, 1081, 1089, 1094],
     [1121, 1126, 1070, 1082, 1117, 1072, 1081, 1089],
     [1094, 1121, 1126, 1070, 1082, 1117, 1072, 1081],
     [1089, 1094, 1121, 1126, 1070, 1077, 1082, 1117],
     [1072, 1076, 1078, 1081, 1089, 1094, 1121, 1126],
     [1070, 1082, 1117, 1072, 1077, 1078, 1081, 1089],
     [1094, 1121, 1126, 1070, 1082, 1117, 1072, 1081],
     [1089, 1094, 1121, 1126, 1070, 1082, 1117, 1072],
     [1081, 1089, 1094, 1121, 1126, 1082, 1117, 1072],
     [1081, 1089, 1094, 1121, 1126, 1072, 1073, 1074],
     [1117, 1075, 1081, 1089, 1094, 1121, 1126, 1070],
     [1082, 1117, 1072, 1081, 1089, 1094, 1121, 1126],
     [1082, 1117, 1072, 1081, 1089, 1094, 1121, 1126],
     [1082, 1117, 1072, 1081, 1089, 1094, 1121, 1126],
     [1082, 1117, 1072, 1073, 1074, 1075, 1081, 1089],
     [1094, 1121, 1126, 1070, 1082, 1117, 1072, 1081],
     [1089, 1094, 1121, 1126, 1070, 1082, 1117, 1072],
     [1081, 1089, 1094, 1121, 1126, 1070, 1082, 1117],
     [1072, 1081, 1089, 1094, 1121, 1126, 1070, 1077],
     [1082, 1117, 1072, 1076, 1078, 1081, 1089, 1094],
     [1121, 1126, 1070, 1082, 1117, 1072, 1077, 1078],
     [1081, 1089, 1094, 1121, 1126, 1070, 1082, 1117],
     [1072, 1081, 1089, 1094, 1121, 1126, 1070, 1082],
     [1117, 1072, 1081, 1089, 1094, 1121, 1126, 1082],
     [1117, 1072, 1081, 1089, 1094, 1121, 1126, 1072],
     [1073, 1074, 1117, 1075, 1081, 1089, 1094, 1121],
     [1126, 1070, 1082, 1117, 1072, 1081, 1089, 1094],
     [1121, 1126, 1082, 1117, 1072, 1081, 1089, 1094],
     [1121, 1126, 1082, 1117, 1072, 1081, 1089, 1094],
     [1121, 1126, 1082, 1117, 1072, 1073, 1074, 1075],
     [1081, 1089, 1094, 1121, 1126, 1070, 1082, 1117],
     [1072, 1081, 1089, 1094, 1121, 1126, 1070, 1082],
     [1117, 1072, 1081, 1089, 1094, 1121, 1126, 1070],
     [1082, 1117, 1072, 1081, 1089, 1094, 1121, 1126],
     [1070, 1077, 1082, 1117, 1072, 1076, 1078, 1081],
     [1089, 1094, 1121, 1126, 1070, 1082, 1117, 1072],
     [1077, 1078, 1081, 1089, 1094, 1121, 1126, 1070],
     [1082, 1117, 1072, 1081, 1089, 1094, 1121, 1126],
     [1070, 1082, 1117, 1072, 1081, 1089, 1094, 1121],
     [1126, 1082, 1117, 1072, 1081, 1089, 1094, 1121],
     [1126, 1082, 1072, 1073, 1074, 1117, 1075, 1081],
     [1089, 1094, 1121, 1126, 1070, 1082, 1117, 1072],
     [1081, 1089, 1094, 1121, 1126, 1082, 1117, 1072],
     [1081, 1089, 1094, 1121, 1126, 1082, 1117, 1072],
     [1081, 1089, 1094, 1121, 1126, 1082, 1117, 1072],
     [1073, 1074, 1075, 1081, 1089, 1094, 1121, 1126],
     [1070, 1082, 1117, 1072, 1081, 1089, 1094, 1121],
     [1126, 1070, 1082, 1117, 1072, 1081, 1089, 1094],
     [1121, 1126, 1070, 1082, 1117, 1072, 1081, 1089],
     [1094, 1121, 1126, 1070, 1077, 1082, 1117, 1072],
     [1076, 1078, 1081, 1089, 1094, 1121, 1126, 1070],
     [1082, 1117, 1072, 1077, 1078, 1081, 1089, 1094],
     [1121, 1126, 1070, 1082, 1117, 1072, 1081, 1089],
     [1094, 1121, 1126, 1070, 1082, 1117, 1072, 1081],
     [1089, 1094, 1121, 1126, 1082, 1117, 1072, 1081],
     [1089, 1094, 1121, 1126, 1072, 1081, 1089, 1094],
     [1121, 1126, 1072, 1081, 1089, 1094, 1121, 1126],
     [1057, 1061, 1071, 1086, 1087, 1088, 1119, 1150],
     [1060, 1081, 1082, 1083, 1085, 1114, 1121, 1146],
     [1072, 1081, 1089, 1094, 1121, 1126, 1072, 1081],
     [1089, 1094, 1121, 1126, 1057, 1061, 1086, 1115],
     [1119, 1150, 1060, 1083, 1085, 1114, 1121, 1146],
     [1067, 1082, 1097, 1129, 1069, 1070, 1072, 1081],
     [1089, 1114, 1121, 1146, 1067, 1082, 1104, 1136],
     [1069, 1070, 1072, 1081, 1089, 1114, 1121, 1146],
     [1067, 1082, 1107, 1139, 1069, 1070, 1072, 1081],
     [1089, 1114, 1121, 1146, 1057, 1061, 1072, 1073],
     [1074, 1083, 1085, 1087, 1115, 1119, 1150, 1059],
     [1071, 1075, 1081, 1089, 1114, 1121, 1146, 1057],
     [1061, 1082, 1085, 1088, 1119, 1150, 1059, 1083],
     [1087, 1114, 1121, 1146, 1072, 1081, 1089, 1094],
     [1121, 1126, 1072, 1081, 1089, 1094, 1121, 1126],
     [1057, 1061, 1085, 1088, 1119, 1150, 1060, 1070],
     [1072, 1081, 1089, 1114, 1121, 1146, 1072, 1081],
     [1089, 1094, 1121, 1126, 1072, 1081, 1089, 1094],
     [1121, 1126, 1072, 1073, 1074, 1115, 1075, 1081],
     [1089, 1114, 1121, 1146, 1069, 1070, 1119, 1072],
     [1081, 1089, 1114, 1121, 1146, 1069, 1119, 1072],
     [1081, 1089, 1114, 1121, 1146, 1069, 1070, 1119],
     [1072, 1081, 1089, 1114, 1121, 1146, 1072, 1081],
     [1089, 1114, 1121, 1146, 1069, 1070, 1082, 1083],
     [1086, 1087, 1119, 1072, 1081, 1089, 1114, 1121],
     [1146, 1069, 1119, 1072, 1081, 1089, 1114, 1121],
     [1146, 1082, 1083, 1086, 1087, 1072, 1081, 1089],
     [1114, 1121, 1146, 1072, 1078, 1073, 1077, 1079]]"

definition sup_trans_keys_5 :: "int list list" where
  "sup_trans_keys_5 =
    [[1081, 1072, 1073, 1081, 1072, 1073, 1081, 1073],
     [1081, 1083, 1086, 1087, 1057, 1061, 1100, 1103],
     [1108, 1117, 1119, 1132, 1135, 1140, 1150, 1060],
     [1067, 1069, 1082, 1089, 1115, 1121, 1146, 1057],
     [1061, 1083, 1085, 1086, 1087, 1117, 1119, 1150],
     [1060, 1067, 1069, 1082, 1089, 1115, 1121, 1146],
     [1072, 1081, 1089, 1094, 1121, 1126, 1072, 1081],
     [1089, 1094, 1121, 1126, 1057, 1061, 1083, 1085],
     [1086, 1087, 1117, 1119, 1150, 1060, 1067, 1069],
     [1082, 1089, 1115, 1121, 1146, 1057, 1061, 1083],
     [1086, 1087, 1117, 1119, 1150, 1060, 1067, 1069],
     [1082, 1089, 1115, 1121, 1146, 1072, 1081, 1089],
     [1094, 1121, 1126, 1072, 1081, 1089, 1094, 1121],
     [1126, 1057, 1060, 1061, 1087, 1117, 1119, 1150],
     [1063, 1067, 1069, 1082, 1089, 1115, 1121, 1146],
     [1057, 1060, 1061, 1085, 1087, 1117, 1119, 1150],
     [1063, 1067, 1069, 1082, 1089, 1115, 1121, 1146],
     [1072, 1081, 1089, 1094, 1121, 1126, 1072, 1081],
     [1089, 1094, 1121, 1126, 1057, 1061, 1062, 1086],
     [1087, 1117, 1119, 1150, 1060, 1067, 1069, 1082],
     [1089, 1115, 1121, 1146, 1072, 1081, 1089, 1094],
     [1121, 1126, 1072, 1081, 1089, 1094, 1121, 1126],
     [1057, 1061, 1117, 1119, 1150, 1060, 1067, 1069],
     [1082, 1089, 1115, 1121, 1146, 1057, 1061, 1083],
     [1085, 1086, 1087, 1106, 1117, 1119, 1138, 1150],
     [1060, 1067, 1069, 1082, 1089, 1115, 1121, 1146],
     [1057, 1061, 1083, 1085, 1086, 1087, 1117, 1119],
     [1150, 1060, 1067, 1069, 1082, 1089, 1115, 1121],
     [1146, 1057, 1061, 1063, 1071, 1082, 1083, 1085],
     [1086, 1087, 1115, 1117, 1120, 1150, 1060, 1065],
     [1066, 1067, 1069, 1081, 1089, 1114, 1119, 1146],
     [1057, 1061, 1063, 1071, 1082, 1083, 1086, 1087],
     [1115, 1117, 1120, 1150, 1060, 1065, 1066, 1067],
     [1069, 1081, 1089, 1114, 1119, 1146, 1057, 1061],
     [1063, 1083, 1086, 1087, 1150, 1066, 1067, 1069],
     [1070, 1072, 1081, 1089, 1094, 1095, 1114, 1119],
     [1120, 1121, 1126, 1127, 1146, 1057, 1061, 1063],
     [1083, 1086, 1087, 1150, 1066, 1067, 1069, 1070],
     [1072, 1081, 1089, 1114, 1119, 1146, 1057, 1061],
     [1063, 1083, 1086, 1087, 1150, 1066, 1067, 1069],
     [1070, 1072, 1081, 1089, 1094, 1095, 1114, 1119],
     [1120, 1121, 1126, 1127, 1146, 1057, 1061, 1083],
     [1085, 1086, 1087, 1090, 1110, 1117, 1119, 1122],
     [1142, 1150, 1060, 1067, 1069, 1082, 1089, 1115],
     [1121, 1146, 1057, 1061, 1083, 1085, 1086, 1087],
     [1117, 1119, 1150, 1060, 1067, 1069, 1082, 1089],
     [1115, 1121, 1146, 1057, 1061, 1083, 1085, 1086],
     [1087, 1097, 1117, 1119, 1129, 1150, 1060, 1067],
     [1069, 1082, 1089, 1115, 1121, 1146, 1057, 1061],
     [1083, 1085, 1086, 1087, 1092, 1117, 1119, 1124],
     [1150, 1060, 1067, 1069, 1082, 1089, 1115, 1121],
     [1146, 1057, 1061, 1083, 1085, 1086, 1087, 1117],
     [1119, 1150, 1060, 1067, 1069, 1082, 1089, 1115],
     [1121, 1146, 1057, 1061, 1063, 1071, 1082, 1083],
     [1085, 1086, 1087, 1115, 1117, 1120, 1150, 1060],
     [1065, 1066, 1067, 1069, 1081, 1089, 1114, 1119],
     [1146, 1057, 1061, 1063, 1071, 1082, 1083, 1086],
     [1087, 1115, 1117, 1120, 1150, 1060, 1065, 1066],
     [1067, 1069, 1081, 1089, 1114, 1119, 1146, 1057],
     [1061, 1063, 1083, 1086, 1087, 1150, 1066, 1067],
     [1069, 1070, 1072, 1081, 1089, 1094, 1095, 1114],
     [1119, 1120, 1121, 1126, 1127, 1146, 1057, 1061],
     [1063, 1083, 1086, 1087, 1150, 1066, 1067, 1069],
     [1070, 1072, 1081, 1089, 1114, 1119, 1146, 1057],
     [1061, 1063, 1083, 1086, 1087, 1150, 1066, 1067],
     [1069, 1070, 1072, 1081, 1089, 1094, 1095, 1114],
     [1119, 1120, 1121, 1126, 1127, 1146, 1057, 1061],
     [1083, 1085, 1086, 1087, 1106, 1117, 1119, 1138],
     [1150, 1060, 1067, 1069, 1082, 1089, 1115, 1121],
     [1146, 1057, 1061, 1083, 1085, 1086, 1087, 1089],
     [1117, 1119, 1121, 1150, 1060, 1067, 1069, 1082],
     [1090, 1115, 1122, 1146, 1057, 1061, 1083, 1085],
     [1086, 1087, 1102, 1117, 1119, 1134, 1150, 1060],
     [1067, 1069, 1082, 1089, 1115, 1121, 1146, 1057],
     [1061, 1083, 1085, 1086, 1087, 1107, 1117, 1119],
     [1139, 1150, 1060, 1067, 1069, 1082, 1089, 1115],
     [1121, 1146, 1057, 1061, 1083, 1085, 1086, 1087],
     [1104, 1117, 1119, 1136, 1150, 1060, 1067, 1069],
     [1082, 1089, 1115, 1121, 1146, 1057, 1061, 1083],
     [1085, 1086, 1087, 1103, 1117, 1119, 1135, 1150],
     [1060, 1067, 1069, 1082, 1089, 1115, 1121, 1146],
     [1057, 1061, 1083, 1085, 1086, 1087, 1106, 1117],
     [1119, 1138, 1150, 1060, 1067, 1069, 1082, 1089],
     [1115, 1121, 1146, 1057, 1061, 1083, 1085, 1086],
     [1087, 1108, 1117, 1119, 1140, 1150, 1060, 1067],
     [1069, 1082, 1089, 1115, 1121, 1146, 1057, 1061],
     [1083, 1085, 1086, 1087, 1117, 1119, 1150, 1060],
     [1067, 1069, 1082, 1089, 1115, 1121, 1146, 1057],
     [1061, 1063, 1071, 1082, 1083, 1085, 1086, 1087],
     [1107, 1108, 1109, 1111, 1115, 1117, 1120, 1139],
     [1140, 1141, 1143, 1150, 1060, 1065, 1066, 1067],
     [1069, 1081, 1089, 1114, 1119, 1146, 1057, 1061],
     [1063, 1071, 1082, 1083, 1086, 1087, 1115, 1117],
     [1120, 1150, 1060, 1065, 1066, 1067, 1069, 1081],
     [1089, 1114, 1119, 1146, 1057, 1061, 1063, 1083],
     [1086, 1087, 1150, 1066, 1067, 1069, 1070, 1072],
     [1081, 1089, 1094, 1095, 1114, 1119, 1120, 1121],
     [1126, 1127, 1146, 1057, 1061, 1063, 1083, 1086],
     [1087, 1150, 1066, 1067, 1069, 1070, 1072, 1081],
     [1089, 1114, 1119, 1146, 1057, 1061, 1063, 1083],
     [1086, 1087, 1150, 1066, 1067, 1069, 1070, 1072],
     [1081, 1089, 1094, 1095, 1114, 1119, 1120, 1121],
     [1126, 1127, 1146, 1057, 1061, 1063, 1071, 1082],
     [1083, 1086, 1087, 1091, 1115, 1117, 1120, 1123],
     [1150, 1060, 1065, 1066, 1067, 1069, 1081, 1089],
     [1114, 1119, 1146, 1057, 1061, 1063, 1071, 1082],
     [1083, 1086, 1087, 1108, 1115, 1117, 1120, 1140],
     [1150, 1060, 1065, 1066, 1067, 1069, 1081, 1089],
     [1114, 1119, 1146, 1057, 1061, 1063, 1071, 1082],
     [1083, 1086, 1087, 1104, 1115, 1117, 1120, 1136],
     [1150, 1060, 1065, 1066, 1067, 1069, 1081, 1089],
     [1114, 1119, 1146, 1057, 1061, 1063, 1071, 1082],
     [1083, 1086, 1087, 1115, 1117, 1120, 1150, 1060],
     [1065, 1066, 1067, 1069, 1081, 1089, 1114, 1119],
     [1146, 1057, 1061, 1063, 1071, 1082, 1083, 1086],
     [1087, 1091, 1100, 1115, 1117, 1120, 1123, 1132],
     [1150, 1060, 1065, 1066, 1067, 1069, 1081, 1089],
     [1114, 1119, 1146, 1057, 1061, 1063, 1071, 1082],
     [1083, 1086, 1087, 1104, 1115, 1117, 1120, 1136],
     [1150, 1060, 1065, 1066, 1067, 1069, 1081, 1089],
     [1114, 1119, 1146, 1057, 1061, 1063, 1071, 1082],
     [1083, 1086, 1087, 1115, 1117, 1120, 1150, 1060],
     [1065, 1066, 1067, 1069, 1081, 1089, 1114, 1119],
     [1146, 1057, 1061, 1063, 1071, 1082, 1083, 1086],
     [1087, 1107, 1115, 1117, 1120, 1139, 1150, 1060],
     [1065, 1066, 1067, 1069, 1081, 1089, 1114, 1119],
     [1146, 1057, 1061, 1063, 1071, 1082, 1083, 1086],
     [1087, 1115, 1117, 1120, 1150, 1060, 1065, 1066],
     [1067, 1069, 1081, 1089, 1114, 1119, 1146, 1057],
     [1061, 1063, 1071, 1082, 1083, 1086, 1087, 1092],
     [1115, 1117, 1120, 1124, 1150, 1060, 1065, 1066],
     [1067, 1069, 1081, 1089, 1114, 1119, 1146, 1057],
     [1061, 1063, 1071, 1082, 1083, 1086, 1087, 1104],
     [1115, 1117, 1120, 1136, 1150, 1060, 1065, 1066],
     [1067, 1069, 1081, 1089, 1114, 1119, 1146, 1057],
     [1061, 1063, 1071, 1082, 1083, 1086, 1087, 1115],
     [1117, 1120, 1150, 1060, 1065, 1066, 1067, 1069],
     [1081, 1089, 1114, 1119, 1146, 1057, 1061, 1063],
     [1071, 1082, 1083, 1086, 1087, 1107, 1115, 1117],
     [1120, 1139, 1150, 1060, 1065, 1066, 1067, 1069],
     [1081, 1089, 1114, 1119, 1146, 1057, 1061, 1063],
     [1071, 1082, 1083, 1086, 1087, 1107, 1115, 1117],
     [1120, 1139, 1150, 1060, 1065, 1066, 1067, 1069],
     [1081, 1089, 1114, 1119, 1146, 1057, 1061, 1063],
     [1071, 1082, 1083, 1086, 1087, 1115, 1117, 1120],
     [1150, 1060, 1065, 1066, 1067, 1069, 1081, 1089],
     [1114, 1119, 1146, 1083, 1086, 1087, 1072, 1081],
     [1083, 1086, 1087, 1072, 1081, 1083, 1086, 1087],
     [1072, 1081, 1083, 1086, 1087, 1072, 1081, 1077],
     [1083, 1086, 1087, 1072, 1076, 1078, 1081, 1077]]"

definition sup_trans_keys_6 :: "int list list" where
  "sup_trans_keys_6 =
    [[1083, 1086, 1087, 1072, 1076, 1078, 1081, 1075],
     [1083, 1086, 1087, 1072, 1074, 1076, 1081, 1083],
     [1086, 1087, 1072, 1077, 1072, 1073, 1074, 1075],
     [1081, 1089, 1114, 1121, 1146, 1069, 1070, 1119],
     [1072, 1081, 1089, 1114, 1121, 1146, 1072, 1073],
     [1074, 1075, 1081, 1089, 1114, 1121, 1146, 1069],
     [1070, 1119, 1072, 1081, 1089, 1114, 1121, 1146],
     [1072, 1073, 1074, 1075, 1081, 1089, 1114, 1121],
     [1146, 1069, 1070, 1082, 1083, 1086, 1087, 1119],
     [1072, 1081, 1089, 1114, 1121, 1146, 1069, 1070],
     [1082, 1083, 1086, 1087, 1119, 1072, 1081, 1089],
     [1114, 1121, 1146, 1069, 1070, 1082, 1083, 1086],
     [1087, 1119, 1072, 1081, 1089, 1114, 1121, 1146],
     [1069, 1070, 1077, 1082, 1083, 1086, 1087, 1119],
     [1072, 1076, 1078, 1081, 1089, 1114, 1121, 1146],
     [1069, 1070, 1082, 1083, 1086, 1087, 1119, 1072],
     [1077, 1078, 1081, 1089, 1114, 1121, 1146, 1069],
     [1070, 1119, 1072, 1081, 1089, 1114, 1121, 1146],
     [1069, 1070, 1119, 1072, 1081, 1089, 1114, 1121],
     [1146, 1069, 1070, 1077, 1119, 1072, 1076, 1078],
     [1081, 1089, 1114, 1121, 1146, 1069, 1070, 1119],
     [1072, 1077, 1078, 1081, 1089, 1114, 1121, 1146],
     [1069, 1070, 1119, 1072, 1081, 1089, 1114, 1121],
     [1146, 1069, 1070, 1119, 1072, 1081, 1089, 1114],
     [1121, 1146, 1069, 1070, 1077, 1119, 1072, 1076],
     [1078, 1081, 1089, 1114, 1121, 1146, 1069, 1070],
     [1119, 1072, 1077, 1078, 1081, 1089, 1114, 1121],
     [1146, 1069, 1070, 1119, 1072, 1081, 1089, 1114],
     [1121, 1146, 1069, 1070, 1119, 1072, 1081, 1089],
     [1114, 1121, 1146, 1069, 1070, 1077, 1119, 1072],
     [1076, 1078, 1081, 1089, 1114, 1121, 1146, 1069],
     [1070, 1119, 1072, 1077, 1078, 1081, 1089, 1114],
     [1121, 1146, 1082, 1072, 1081, 1089, 1094, 1121],
     [1126, 1082, 1072, 1081, 1089, 1094, 1121, 1126],
     [1082, 1072, 1081, 1089, 1094, 1121, 1126, 1082],
     [1072, 1081, 1089, 1094, 1121, 1126, 1082, 1082],
     [1072, 1081, 1089, 1094, 1121, 1126, 1082, 1072],
     [1081, 1089, 1094, 1121, 1126, 1082, 1072, 1081],
     [1089, 1094, 1121, 1126, 1082, 1072, 1081, 1089],
     [1094, 1121, 1126, 1082, 1082, 1072, 1081, 1089],
     [1094, 1121, 1126, 1082, 1072, 1081, 1089, 1094],
     [1121, 1126, 1082, 1072, 1081, 1089, 1094, 1121],
     [1126, 1082, 1072, 1081, 1089, 1094, 1121, 1126],
     [1082, 1082, 1072, 1081, 1089, 1094, 1121, 1126],
     [1082, 1072, 1081, 1089, 1094, 1121, 1126, 1082],
     [1072, 1081, 1089, 1094, 1121, 1126, 1082, 1072],
     [1081, 1089, 1094, 1121, 1126, 1082, 1082, 1072],
     [1081, 1089, 1094, 1121, 1126, 1082, 1072, 1081],
     [1089, 1094, 1121, 1126, 1082, 1072, 1081, 1089],
     [1094, 1121, 1126, 1082, 1072, 1081, 1089, 1094],
     [1121, 1126, 1082, 1082, 1072, 1081, 1089, 1094],
     [1121, 1126, 1082, 1072, 1081, 1089, 1094, 1121],
     [1126, 1082, 1072, 1081, 1089, 1094, 1121, 1126],
     [1082, 1072, 1081, 1089, 1094, 1121, 1126, 1082],
     [1072, 1073, 1074, 1082, 1075, 1081, 1089, 1094],
     [1121, 1126, 1070, 1082, 1072, 1081, 1089, 1094],
     [1121, 1126, 1072, 1073, 1074, 1075, 1081, 1070],
     [1072, 1073, 1074, 1075, 1081, 1070, 1072, 1073],
     [1074, 1075, 1081, 1117, 1082, 1083, 1086, 1087],
     [1117, 1072, 1081, 1117, 1072, 1081, 1077, 1117],
     [1072, 1076, 1078, 1081, 1117, 1072, 1077, 1070],
     [1072, 1081, 1070, 1072, 1081, 1070, 1077, 1072],
     [1076, 1078, 1081, 1070, 1072, 1077, 1070, 1072],
     [1081, 1070, 1072, 1081, 1070, 1077, 1072, 1076],
     [1078, 1081, 1070, 1072, 1077, 1082, 1072, 1081],
     [1089, 1094, 1121, 1126, 1082, 1072, 1081, 1089],
     [1094, 1121, 1126, 1082, 1082, 1072, 1081, 1089],
     [1094, 1121, 1126, 1117, 1072, 1081, 1089, 1094],
     [1121, 1126, 1117, 1072, 1081, 1089, 1094, 1121],
     [1126, 1117, 1072, 1081, 1089, 1094, 1121, 1126],
     [1070, 1082, 1072, 1081, 1089, 1094, 1121, 1126],
     [1070, 1082, 1072, 1081, 1089, 1094, 1121, 1126],
     [1070, 1082, 1072, 1081, 1089, 1094, 1121, 1126],
     [1070, 1077, 1082, 1072, 1076, 1078, 1081, 1089],
     [1094, 1121, 1126, 1070, 1082, 1072, 1077, 1078],
     [1081, 1089, 1094, 1121, 1126, 1070, 1082, 1072],
     [1081, 1089, 1094, 1121, 1126, 1070, 1082, 1072],
     [1081, 1089, 1094, 1121, 1126, 1117, 1072, 1081],
     [1089, 1094, 1121, 1126, 1082, 1072, 1081, 1089],
     [1094, 1121, 1126, 1072, 1073, 1074, 1117, 1075],
     [1081, 1089, 1094, 1121, 1126, 1070, 1082, 1117],
     [1072, 1081, 1089, 1094, 1121, 1126, 1082, 1117],
     [1072, 1081, 1089, 1094, 1121, 1126, 1082, 1117],
     [1072, 1081, 1089, 1094, 1121, 1126, 1082, 1117],
     [1072, 1081, 1089, 1094, 1121, 1126, 1070, 1082],
     [1117, 1072, 1081, 1089, 1094, 1121, 1126, 1070],
     [1082, 1117, 1072, 1081, 1089, 1094, 1121, 1126],
     [1070, 1082, 1117, 1072, 1081, 1089, 1094, 1121],
     [1126, 1070, 1077, 1082, 1117, 1072, 1076, 1078],
     [1081, 1089, 1094, 1121, 1126, 1070, 1082, 1117],
     [1072, 1077, 1078, 1081, 1089, 1094, 1121, 1126],
     [1070, 1082, 1117, 1072, 1081, 1089, 1094, 1121],
     [1126, 1070, 1082, 1117, 1072, 1081, 1089, 1094],
     [1121, 1126, 1082, 1117, 1072, 1081, 1089, 1094],
     [1121, 1126, 1072, 1073, 1074, 1117, 1075, 1081],
     [1089, 1094, 1121, 1126, 1070, 1082, 1117, 1072],
     [1081, 1089, 1094, 1121, 1126, 1082, 1117, 1072],
     [1081, 1089, 1094, 1121, 1126, 1082, 1117, 1072],
     [1081, 1089, 1094, 1121, 1126, 1082, 1117, 1072],
     [1073, 1074, 1075, 1081, 1089, 1094, 1121, 1126],
     [1070, 1082, 1117, 1072, 1081, 1089, 1094, 1121],
     [1126, 1070, 1082, 1117, 1072, 1081, 1089, 1094],
     [1121, 1126, 1070, 1082, 1117, 1072, 1081, 1089],
     [1094, 1121, 1126, 1070, 1077, 1082, 1117, 1072],
     [1076, 1078, 1081, 1089, 1094, 1121, 1126, 1070],
     [1082, 1117, 1072, 1077, 1078, 1081, 1089, 1094],
     [1121, 1126, 1070, 1082, 1117, 1072, 1081, 1089],
     [1094, 1121, 1126, 1070, 1082, 1117, 1072, 1081],
     [1089, 1094, 1121, 1126, 1082, 1117, 1072, 1081],
     [1089, 1094, 1121, 1126, 1072, 1073, 1074, 1117],
     [1075, 1081, 1089, 1094, 1121, 1126, 1070, 1082],
     [1117, 1072, 1081, 1089, 1094, 1121, 1126, 1082],
     [1117, 1072, 1081, 1089, 1094, 1121, 1126, 1082],
     [1117, 1072, 1081, 1089, 1094, 1121, 1126, 1082],
     [1117, 1072, 1073, 1074, 1075, 1081, 1089, 1094],
     [1121, 1126, 1070, 1082, 1117, 1072, 1081, 1089],
     [1094, 1121, 1126, 1070, 1082, 1117, 1072, 1081],
     [1089, 1094, 1121, 1126, 1070, 1082, 1117, 1072],
     [1081, 1089, 1094, 1121, 1126, 1070, 1077, 1082],
     [1117, 1072, 1076, 1078, 1081, 1089, 1094, 1121],
     [1126, 1070, 1082, 1117, 1072, 1077, 1078, 1081],
     [1089, 1094, 1121, 1126, 1070, 1082, 1117, 1072],
     [1081, 1089, 1094, 1121, 1126, 1070, 1082, 1117],
     [1072, 1081, 1089, 1094, 1121, 1126, 1082, 1117],
     [1072, 1081, 1089, 1094, 1121, 1126, 1072, 1073],
     [1074, 1117, 1075, 1081, 1089, 1094, 1121, 1126],
     [1070, 1082, 1117, 1072, 1081, 1089, 1094, 1121],
     [1126, 1082, 1117, 1072, 1081, 1089, 1094, 1121],
     [1126, 1082, 1117, 1072, 1081, 1089, 1094, 1121],
     [1126, 1082, 1117, 1072, 1073, 1074, 1075, 1081],
     [1089, 1094, 1121, 1126, 1070, 1082, 1117, 1072],
     [1081, 1089, 1094, 1121, 1126, 1070, 1082, 1117],
     [1072, 1081, 1089, 1094, 1121, 1126, 1070, 1082],
     [1117, 1072, 1081, 1089, 1094, 1121, 1126, 1070],
     [1077, 1082, 1117, 1072, 1076, 1078, 1081, 1089],
     [1094, 1121, 1126, 1070, 1082, 1117, 1072, 1077],
     [1078, 1081, 1089, 1094, 1121, 1126, 1070, 1082],
     [1117, 1072, 1081, 1089, 1094, 1121, 1126, 1070],
     [1082, 1117, 1072, 1081, 1089, 1094, 1121, 1126],
     [1082, 1117, 1072, 1081, 1089, 1094, 1121, 1126],
     [1072, 1073, 1074, 1117, 1075, 1081, 1089, 1094],
     [1121, 1126, 1070, 1082, 1117, 1072, 1081, 1089],
     [1094, 1121, 1126, 1082, 1117, 1072, 1081, 1089],
     [1094, 1121, 1126, 1082, 1117, 1072, 1081, 1089],
     [1094, 1121, 1126, 1082, 1117, 1072, 1073, 1074],
     [1075, 1081, 1089, 1094, 1121, 1126, 1070, 1082],
     [1117, 1072, 1081, 1089, 1094, 1121, 1126, 1070],
     [1082, 1117, 1072, 1081, 1089, 1094, 1121, 1126],
     [1070, 1082, 1117, 1072, 1081, 1089, 1094, 1121],
     [1126, 1070, 1077, 1082, 1117, 1072, 1076, 1078]]"

definition sup_trans_keys_7 :: "int list list" where
  "sup_trans_keys_7 =
    [[1081, 1089, 1094, 1121, 1126, 1070, 1082, 1117],
     [1072, 1077, 1078, 1081, 1089, 1094, 1121, 1126],
     [1070, 1082, 1117, 1072, 1081, 1089, 1094, 1121],
     [1126, 1070, 1082, 1117, 1072, 1081, 1089, 1094],
     [1121, 1126, 1082, 1117, 1072, 1081, 1089, 1094],
     [1121, 1126, 1082, 1072, 1073, 1074, 1117, 1075],
     [1081, 1089, 1094, 1121, 1126, 1070, 1082, 1117],
     [1072, 1081, 1089, 1094, 1121, 1126, 1082, 1117],
     [1072, 1081, 1089, 1094, 1121, 1126, 1082, 1117],
     [1072, 1081, 1089, 1094, 1121, 1126, 1082, 1117],
     [1072, 1073, 1074, 1075, 1081, 1089, 1094, 1121],
     [1126, 1070, 1082, 1117, 1072, 1081, 1089, 1094],
     [1121, 1126, 1070, 1082, 1117, 1072, 1081, 1089],
     [1094, 1121, 1126, 1070, 1082, 1117, 1072, 1081],
     [1089, 1094, 1121, 1126, 1070, 1077, 1082, 1117],
     [1072, 1076, 1078, 1081, 1089, 1094, 1121, 1126],
     [1070, 1082, 1117, 1072, 1077, 1078, 1081, 1089],
     [1094, 1121, 1126, 1070, 1082, 1117, 1072, 1081],
     [1089, 1094, 1121, 1126, 1070, 1082, 1117, 1072],
     [1081, 1089, 1094, 1121, 1126, 1082, 1117, 1072],
     [1081, 1089, 1094, 1121, 1126, 1057, 1061, 1069],
     [1070, 1082, 1083, 1085, 1087, 1088, 1119, 1150],
     [1059, 1071, 1072, 1081, 1089, 1114, 1121, 1146],
     [1057, 1061, 1069, 1082, 1083, 1085, 1087, 1088],
     [1119, 1150, 1059, 1071, 1072, 1081, 1089, 1114],
     [1121, 1146, 1057, 1061, 1069, 1070, 1082, 1083],
     [1085, 1087, 1088, 1119, 1150, 1059, 1071, 1072],
     [1081, 1089, 1114, 1121, 1146, 1057, 1061, 1082],
     [1083, 1085, 1087, 1088, 1119, 1150, 1059, 1071],
     [1072, 1081, 1089, 1114, 1121, 1146, 1057, 1061],
     [1069, 1070, 1082, 1083, 1085, 1086, 1087, 1088],
     [1119, 1150, 1059, 1071, 1072, 1081, 1089, 1114],
     [1121, 1146, 1057, 1061, 1069, 1082, 1083, 1085],
     [1087, 1088, 1119, 1150, 1059, 1071, 1072, 1081],
     [1089, 1114, 1121, 1146, 1057, 1061, 1082, 1083],
     [1085, 1086, 1087, 1088, 1119, 1150, 1059, 1071],
     [1072, 1081, 1089, 1114, 1121, 1146, 1057, 1061],
     [1072, 1078, 1085, 1088, 1119, 1150, 1060, 1070],
     [1073, 1077, 1079, 1081, 1089, 1114, 1121, 1146],
     [1057, 1061, 1072, 1085, 1088, 1119, 1150, 1060],
     [1070, 1073, 1081, 1089, 1114, 1121, 1146, 1057],
     [1061, 1072, 1085, 1088, 1119, 1150, 1060, 1070],
     [1073, 1081, 1089, 1114, 1121, 1146, 1057, 1061],
     [1072, 1085, 1088, 1119, 1150, 1060, 1070, 1073],
     [1081, 1089, 1114, 1121, 1146, 1057, 1061, 1083],
     [1086, 1087, 1088, 1119, 1150, 1060, 1070, 1072],
     [1081, 1085, 1114, 1121, 1146, 1057, 1061, 1083],
     [1086, 1087, 1088, 1119, 1150, 1060, 1070, 1072],
     [1081, 1085, 1114, 1121, 1146, 1057, 1061, 1083],
     [1086, 1087, 1088, 1119, 1150, 1060, 1070, 1072],
     [1081, 1085, 1114, 1121, 1146, 1057, 1061, 1083],
     [1086, 1087, 1088, 1119, 1150, 1060, 1070, 1072],
     [1081, 1085, 1114, 1121, 1146, 1057, 1061, 1083],
     [1086, 1087, 1088, 1119, 1150, 1060, 1070, 1072],
     [1081, 1085, 1114, 1121, 1146, 1057, 1061, 1077],
     [1083, 1086, 1087, 1088, 1119, 1150, 1060, 1070],
     [1072, 1076, 1078, 1081, 1085, 1114, 1121, 1146],
     [1057, 1061, 1077, 1083, 1086, 1087, 1088, 1119],
     [1150, 1060, 1070, 1072, 1076, 1078, 1081, 1085],
     [1114, 1121, 1146, 1057, 1061, 1075, 1083, 1086],
     [1087, 1088, 1119, 1150, 1060, 1070, 1072, 1074],
     [1076, 1081, 1085, 1114, 1121, 1146, 1057, 1061],
     [1083, 1086, 1087, 1088, 1119, 1150, 1060, 1070],
     [1072, 1077, 1078, 1081, 1085, 1114, 1121, 1146],
     [1057, 1059, 1061, 1068, 1082, 1083, 1085, 1087],
     [1088, 1100, 1103, 1108, 1115, 1117, 1119, 1132],
     [1135, 1140, 1150, 1060, 1081, 1089, 1114, 1121],
     [1146, 1057, 1059, 1061, 1068, 1082, 1083, 1085],
     [1086, 1087, 1088, 1115, 1117, 1119, 1150, 1060],
     [1081, 1089, 1114, 1121, 1146, 1072, 1081, 1089],
     [1094, 1121, 1126, 1072, 1081, 1089, 1094, 1121],
     [1126, 1057, 1061, 1068, 1071, 1082, 1083, 1085],
     [1086, 1087, 1088, 1115, 1117, 1119, 1150, 1060],
     [1081, 1089, 1114, 1121, 1146, 1072, 1081, 1089],
     [1094, 1121, 1126, 1072, 1081, 1089, 1094, 1121],
     [1126, 1057, 1061, 1068, 1071, 1082, 1083, 1085],
     [1086, 1087, 1088, 1115, 1117, 1119, 1150, 1060],
     [1081, 1089, 1114, 1121, 1146, 1057, 1061, 1068],
     [1071, 1082, 1083, 1085, 1086, 1087, 1088, 1115],
     [1117, 1119, 1150, 1060, 1081, 1089, 1114, 1121],
     [1146, 1072, 1081, 1089, 1094, 1121, 1126, 1072],
     [1081, 1089, 1094, 1121, 1126, 1057, 1061, 1068],
     [1071, 1082, 1085, 1088, 1115, 1117, 1119, 1150],
     [1060, 1081, 1089, 1114, 1121, 1146, 1057, 1059],
     [1061, 1068, 1082, 1083, 1085, 1086, 1087, 1088],
     [1115, 1117, 1119, 1150, 1060, 1081, 1089, 1114],
     [1121, 1146, 1057, 1059, 1061, 1068, 1082, 1083],
     [1085, 1086, 1087, 1088, 1115, 1117, 1119, 1150],
     [1060, 1081, 1089, 1114, 1121, 1146, 1072, 1081],
     [1089, 1094, 1121, 1126, 1072, 1081, 1089, 1094],
     [1121, 1126, 1057, 1060, 1061, 1068, 1082, 1083],
     [1085, 1088, 1115, 1117, 1119, 1150, 1059, 1062],
     [1063, 1081, 1087, 1114, 1121, 1146, 1057, 1060],
     [1061, 1068, 1082, 1083, 1085, 1088, 1115, 1117],
     [1119, 1150, 1059, 1062, 1063, 1081, 1087, 1114],
     [1121, 1146, 1072, 1081, 1089, 1094, 1121, 1126],
     [1072, 1081, 1089, 1094, 1121, 1126, 1057, 1061],
     [1062, 1068, 1071, 1082, 1085, 1087, 1088, 1115],
     [1117, 1119, 1150, 1060, 1081, 1089, 1114, 1121],
     [1146, 1072, 1081, 1089, 1094, 1121, 1126, 1072],
     [1081, 1089, 1094, 1121, 1126, 1057, 1061, 1062],
     [1068, 1071, 1082, 1085, 1086, 1087, 1088, 1115],
     [1117, 1119, 1150, 1060, 1081, 1089, 1114, 1121],
     [1146, 1072, 1081, 1089, 1094, 1121, 1126, 1072],
     [1081, 1089, 1094, 1121, 1126, 1057, 1061, 1062],
     [1068, 1071, 1082, 1085, 1087, 1088, 1115, 1117],
     [1119, 1150, 1060, 1081, 1089, 1114, 1121, 1146],
     [1057, 1059, 1061, 1062, 1068, 1082, 1083, 1085],
     [1086, 1088, 1115, 1117, 1119, 1150, 1060, 1081],
     [1087, 1114, 1121, 1146, 1072, 1081, 1089, 1094],
     [1121, 1126, 1072, 1081, 1089, 1094, 1121, 1126],
     [1057, 1059, 1061, 1068, 1082, 1083, 1085, 1087],
     [1088, 1115, 1117, 1119, 1150, 1060, 1081, 1089],
     [1114, 1121, 1146, 1057, 1059, 1061, 1068, 1082],
     [1083, 1085, 1086, 1087, 1088, 1106, 1115, 1117],
     [1119, 1138, 1150, 1060, 1081, 1089, 1114, 1121],
     [1146, 1057, 1059, 1061, 1068, 1082, 1083, 1085],
     [1086, 1087, 1088, 1115, 1117, 1119, 1150, 1060],
     [1081, 1089, 1114, 1121, 1146, 1057, 1059, 1061],
     [1063, 1068, 1071, 1082, 1083, 1085, 1086, 1087],
     [1088, 1115, 1117, 1120, 1150, 1060, 1065, 1066],
     [1081, 1089, 1114, 1119, 1146, 1057, 1059, 1061],
     [1063, 1068, 1071, 1082, 1083, 1085, 1086, 1087],
     [1088, 1115, 1117, 1120, 1150, 1060, 1065, 1066],
     [1081, 1089, 1114, 1119, 1146, 1057, 1061, 1063],
     [1083, 1086, 1087, 1150, 1066, 1067, 1069, 1070],
     [1072, 1081, 1089, 1094, 1095, 1114, 1119, 1120],
     [1121, 1126, 1127, 1146, 1057, 1061, 1063, 1083],
     [1086, 1087, 1150, 1066, 1067, 1069, 1070, 1072],
     [1081, 1089, 1094, 1095, 1114, 1119, 1120, 1121],
     [1126, 1127, 1146, 1057, 1059, 1061, 1068, 1082],
     [1083, 1085, 1086, 1087, 1088, 1090, 1110, 1115],
     [1117, 1119, 1122, 1142, 1150, 1060, 1081, 1089],
     [1114, 1121, 1146, 1057, 1059, 1061, 1068, 1082],
     [1083, 1085, 1086, 1087, 1088, 1115, 1117, 1119],
     [1150, 1060, 1081, 1089, 1114, 1121, 1146, 1057],
     [1059, 1061, 1068, 1082, 1083, 1085, 1086, 1087],
     [1088, 1097, 1115, 1117, 1119, 1129, 1150, 1060],
     [1081, 1089, 1114, 1121, 1146, 1057, 1059, 1061],
     [1068, 1082, 1083, 1085, 1086, 1087, 1088, 1092],
     [1115, 1117, 1119, 1124, 1150, 1060, 1081, 1089],
     [1114, 1121, 1146, 1057, 1059, 1061, 1068, 1082],
     [1083, 1085, 1086, 1087, 1088, 1115, 1117, 1119],
     [1150, 1060, 1081, 1089, 1114, 1121, 1146, 1057],
     [1059, 1061, 1063, 1068, 1071, 1082, 1083, 1085],
     [1086, 1087, 1088, 1115, 1117, 1120, 1150, 1060],
     [1065, 1066, 1081, 1089, 1114, 1119, 1146, 1057],
     [1059, 1061, 1063, 1068, 1071, 1082, 1083, 1085],
     [1086, 1087, 1088, 1115, 1117, 1120, 1150, 1060],
     [1065, 1066, 1081, 1089, 1114, 1119, 1146, 1057]]"

definition sup_trans_keys_8 :: "int list list" where
  "sup_trans_keys_8 =
    [[1061, 1063, 1083, 1086, 1087, 1150, 1066, 1067],
     [1069, 1070, 1072, 1081, 1089, 1094, 1095, 1114],
     [1119, 1120, 1121, 1126, 1127, 1146, 1057, 1061],
     [1063, 1083, 1086, 1087, 1150, 1066, 1067, 1069],
     [1070, 1072, 1081, 1089, 1094, 1095, 1114, 1119],
     [1120, 1121, 1126, 1127, 1146, 1057, 1059, 1061],
     [1068, 1082, 1083, 1085, 1086, 1087, 1088, 1106],
     [1115, 1117, 1119, 1138, 1150, 1060, 1081, 1089],
     [1114, 1121, 1146, 1057, 1059, 1061, 1068, 1082],
     [1083, 1085, 1086, 1087, 1088, 1089, 1115, 1117],
     [1119, 1121, 1150, 1060, 1081, 1090, 1114, 1122],
     [1146, 1057, 1059, 1061, 1068, 1082, 1083, 1085],
     [1086, 1087, 1088, 1102, 1115, 1117, 1119, 1134],
     [1150, 1060, 1081, 1089, 1114, 1121, 1146, 1057],
     [1059, 1061, 1068, 1082, 1083, 1085, 1086, 1087],
     [1088, 1107, 1115, 1117, 1119, 1139, 1150, 1060],
     [1081, 1089, 1114, 1121, 1146, 1057, 1059, 1061],
     [1068, 1082, 1083, 1085, 1086, 1087, 1088, 1104],
     [1115, 1117, 1119, 1136, 1150, 1060, 1081, 1089],
     [1114, 1121, 1146, 1057, 1059, 1061, 1068, 1082],
     [1083, 1085, 1086, 1087, 1088, 1103, 1115, 1117],
     [1119, 1135, 1150, 1060, 1081, 1089, 1114, 1121],
     [1146, 1057, 1059, 1061, 1068, 1082, 1083, 1085],
     [1086, 1087, 1088, 1106, 1115, 1117, 1119, 1138],
     [1150, 1060, 1081, 1089, 1114, 1121, 1146, 1057],
     [1059, 1061, 1068, 1082, 1083, 1085, 1086, 1087],
     [1088, 1108, 1115, 1117, 1119, 1140, 1150, 1060],
     [1081, 1089, 1114, 1121, 1146, 1057, 1059, 1061],
     [1068, 1082, 1083, 1085, 1086, 1087, 1088, 1115],
     [1117, 1119, 1150, 1060, 1081, 1089, 1114, 1121],
     [1146, 1057, 1059, 1061, 1063, 1068, 1071, 1082],
     [1083, 1085, 1086, 1087, 1088, 1107, 1108, 1109],
     [1111, 1115, 1117, 1120, 1139, 1140, 1141, 1143],
     [1150, 1060, 1065, 1066, 1081, 1089, 1114, 1119],
     [1146, 1057, 1059, 1061, 1063, 1068, 1071, 1082],
     [1083, 1085, 1086, 1087, 1088, 1115, 1117, 1120],
     [1150, 1060, 1065, 1066, 1081, 1089, 1114, 1119],
     [1146, 1057, 1061, 1063, 1083, 1086, 1087, 1150],
     [1066, 1067, 1069, 1070, 1072, 1081, 1089, 1094],
     [1095, 1114, 1119, 1120, 1121, 1126, 1127, 1146],
     [1057, 1061, 1063, 1083, 1086, 1087, 1150, 1066],
     [1067, 1069, 1070, 1072, 1081, 1089, 1094, 1095],
     [1114, 1119, 1120, 1121, 1126, 1127, 1146, 1057],
     [1059, 1061, 1063, 1068, 1071, 1082, 1083, 1085],
     [1086, 1087, 1088, 1091, 1115, 1117, 1120, 1123],
     [1150, 1060, 1065, 1066, 1081, 1089, 1114, 1119],
     [1146, 1057, 1059, 1061, 1063, 1068, 1071, 1082],
     [1083, 1085, 1086, 1087, 1088, 1108, 1115, 1117],
     [1120, 1140, 1150, 1060, 1065, 1066, 1081, 1089],
     [1114, 1119, 1146, 1057, 1059, 1061, 1063, 1068],
     [1071, 1082, 1083, 1085, 1086, 1087, 1088, 1104],
     [1115, 1117, 1120, 1136, 1150, 1060, 1065, 1066],
     [1081, 1089, 1114, 1119, 1146, 1057, 1059, 1061],
     [1063, 1068, 1071, 1082, 1083, 1085, 1086, 1087],
     [1088, 1115, 1117, 1120, 1150, 1060, 1065, 1066],
     [1081, 1089, 1114, 1119, 1146, 1057, 1059, 1061],
     [1063, 1068, 1071, 1082, 1083, 1085, 1086, 1087],
     [1088, 1091, 1100, 1115, 1117, 1120, 1123, 1132],
     [1150, 1060, 1065, 1066, 1081, 1089, 1114, 1119],
     [1146, 1057, 1059, 1061, 1063, 1068, 1071, 1082],
     [1083, 1085, 1086, 1087, 1088, 1104, 1115, 1117],
     [1120, 1136, 1150, 1060, 1065, 1066, 1081, 1089],
     [1114, 1119, 1146, 1057, 1059, 1061, 1063, 1068],
     [1071, 1082, 1083, 1085, 1086, 1087, 1088, 1115],
     [1117, 1120, 1150, 1060, 1065, 1066, 1081, 1089],
     [1114, 1119, 1146, 1057, 1059, 1061, 1063, 1068],
     [1071, 1082, 1083, 1085, 1086, 1087, 1088, 1107],
     [1115, 1117, 1120, 1139, 1150, 1060, 1065, 1066],
     [1081, 1089, 1114, 1119, 1146, 1057, 1059, 1061],
     [1063, 1068, 1071, 1082, 1083, 1085, 1086, 1087],
     [1088, 1115, 1117, 1120, 1150, 1060, 1065, 1066],
     [1081, 1089, 1114, 1119, 1146, 1057, 1059, 1061],
     [1063, 1068, 1071, 1082, 1083, 1085, 1086, 1087],
     [1088, 1092, 1115, 1117, 1120, 1124, 1150, 1060],
     [1065, 1066, 1081, 1089, 1114, 1119, 1146, 1057],
     [1059, 1061, 1063, 1068, 1071, 1082, 1083, 1085],
     [1086, 1087, 1088, 1104, 1115, 1117, 1120, 1136],
     [1150, 1060, 1065, 1066, 1081, 1089, 1114, 1119],
     [1146, 1057, 1059, 1061, 1063, 1068, 1071, 1082],
     [1083, 1085, 1086, 1087, 1088, 1115, 1117, 1120],
     [1150, 1060, 1065, 1066, 1081, 1089, 1114, 1119],
     [1146, 1057, 1059, 1061, 1063, 1068, 1071, 1082],
     [1083, 1085, 1086, 1087, 1088, 1107, 1115, 1117],
     [1120, 1139, 1150, 1060, 1065, 1066, 1081, 1089],
     [1114, 1119, 1146, 1057, 1059, 1061, 1063, 1068],
     [1071, 1082, 1083, 1085, 1086, 1087, 1088, 1107],
     [1115, 1117, 1120, 1139, 1150, 1060, 1065, 1066],
     [1081, 1089, 1114, 1119, 1146, 1057, 1059, 1061],
     [1063, 1068, 1071, 1082, 1083, 1085, 1086, 1087],
     [1088, 1115, 1117, 1120, 1150, 1060, 1065, 1066],
     [1081, 1089, 1114, 1119, 1146, 1057, 1061, 1072],
     [1073, 1074, 1082, 1083, 1085, 1087, 1088, 1119],
     [1150, 1059, 1071, 1075, 1081, 1089, 1114, 1121],
     [1146, 1057, 1061, 1069, 1070, 1082, 1083, 1085],
     [1087, 1088, 1119, 1150, 1059, 1071, 1072, 1081],
     [1089, 1114, 1121, 1146, 1057, 1061, 1072, 1073],
     [1074, 1082, 1083, 1085, 1087, 1088, 1119, 1150],
     [1059, 1071, 1075, 1081, 1089, 1114, 1121, 1146],
     [1057, 1061, 1069, 1070, 1082, 1083, 1085, 1087],
     [1088, 1119, 1150, 1059, 1071, 1072, 1081, 1089],
     [1114, 1121, 1146, 1057, 1061, 1072, 1073, 1074],
     [1082, 1083, 1085, 1087, 1088, 1119, 1150, 1059],
     [1071, 1075, 1081, 1089, 1114, 1121, 1146, 1057],
     [1061, 1069, 1070, 1082, 1083, 1085, 1086, 1087],
     [1088, 1119, 1150, 1059, 1071, 1072, 1081, 1089],
     [1114, 1121, 1146, 1057, 1061, 1069, 1070, 1082],
     [1083, 1085, 1086, 1087, 1088, 1119, 1150, 1059],
     [1071, 1072, 1081, 1089, 1114, 1121, 1146, 1057],
     [1061, 1069, 1070, 1082, 1083, 1085, 1086, 1087],
     [1088, 1119, 1150, 1059, 1071, 1072, 1081, 1089],
     [1114, 1121, 1146, 1057, 1061, 1069, 1070, 1077],
     [1082, 1083, 1085, 1086, 1087, 1088, 1119, 1150],
     [1059, 1071, 1072, 1076, 1078, 1081, 1089, 1114],
     [1121, 1146, 1057, 1061, 1069, 1070, 1082, 1083],
     [1085, 1086, 1087, 1088, 1119, 1150, 1059, 1071],
     [1072, 1077, 1078, 1081, 1089, 1114, 1121, 1146],
     [1057, 1061, 1069, 1070, 1082, 1083, 1085, 1087],
     [1088, 1119, 1150, 1059, 1071, 1072, 1081, 1089],
     [1114, 1121, 1146, 1057, 1061, 1069, 1070, 1082],
     [1083, 1085, 1087, 1088, 1119, 1150, 1059, 1071],
     [1072, 1081, 1089, 1114, 1121, 1146, 1057, 1061],
     [1069, 1070, 1077, 1082, 1083, 1085, 1087, 1088],
     [1119, 1150, 1059, 1071, 1072, 1076, 1078, 1081],
     [1089, 1114, 1121, 1146, 1057, 1061, 1069, 1070],
     [1082, 1083, 1085, 1087, 1088, 1119, 1150, 1059],
     [1071, 1072, 1077, 1078, 1081, 1089, 1114, 1121],
     [1146, 1057, 1061, 1069, 1070, 1082, 1083, 1085],
     [1087, 1088, 1119, 1150, 1059, 1071, 1072, 1081],
     [1089, 1114, 1121, 1146, 1057, 1061, 1069, 1070],
     [1082, 1083, 1085, 1087, 1088, 1119, 1150, 1059],
     [1071, 1072, 1081, 1089, 1114, 1121, 1146, 1057],
     [1061, 1069, 1070, 1077, 1082, 1083, 1085, 1087],
     [1088, 1119, 1150, 1059, 1071, 1072, 1076, 1078],
     [1081, 1089, 1114, 1121, 1146, 1057, 1061, 1069],
     [1070, 1082, 1083, 1085, 1087, 1088, 1119, 1150],
     [1059, 1071, 1072, 1077, 1078, 1081, 1089, 1114],
     [1121, 1146, 1057, 1061, 1069, 1070, 1082, 1083],
     [1085, 1087, 1088, 1119, 1150, 1059, 1071, 1072],
     [1081, 1089, 1114, 1121, 1146, 1057, 1061, 1069],
     [1070, 1082, 1083, 1085, 1087, 1088, 1119, 1150],
     [1059, 1071, 1072, 1081, 1089, 1114, 1121, 1146],
     [1057, 1061, 1069, 1070, 1077, 1082, 1083, 1085],
     [1087, 1088, 1119, 1150, 1059, 1071, 1072, 1076],
     [1078, 1081, 1089, 1114, 1121, 1146, 1057, 1061],
     [1069, 1070, 1082, 1083, 1085, 1087, 1088, 1119],
     [1150, 1059, 1071, 1072, 1077, 1078, 1081, 1089],
     [1114, 1121, 1146, 1067, 1082, 1069, 1070, 1072],
     [1081, 1089, 1114, 1121, 1146, 1067, 1082, 1093],
     [1125, 1069, 1070, 1072, 1081, 1089, 1114, 1121],
     [1146, 1067, 1082, 1100, 1132, 1069, 1070, 1072]]"

definition sup_trans_keys_9 :: "int list list" where
  "sup_trans_keys_9 =
    [[1081, 1089, 1114, 1121, 1146, 1067, 1082, 1069],
     [1070, 1072, 1081, 1089, 1114, 1121, 1146, 1059],
     [1066, 1067, 1064, 1065, 1069, 1070, 1072, 1081],
     [1089, 1094, 1121, 1126, 1059, 1083, 1086, 1064],
     [1066, 1069, 1070, 1072, 1081, 1089, 1094, 1121],
     [1126, 1069, 1104, 1136, 1072, 1081, 1089, 1114],
     [1121, 1146, 1069, 1083, 1085, 1086, 1072, 1081],
     [1089, 1114, 1121, 1146, 1057, 1061, 1117, 1119],
     [1150, 1060, 1067, 1069, 1082, 1089, 1115, 1121],
     [1146, 1057, 1061, 1083, 1086, 1117, 1119, 1150],
     [1060, 1067, 1069, 1082, 1089, 1115, 1121, 1146],
     [1072, 1081, 1089, 1094, 1121, 1126, 1072, 1081],
     [1089, 1094, 1121, 1126, 1069, 1083, 1085, 1086],
     [1096, 1128, 1072, 1081, 1089, 1114, 1121, 1146],
     [1069, 1083, 1085, 1086, 1103, 1135, 1072, 1081],
     [1089, 1114, 1121, 1146, 1069, 1083, 1085, 1086],
     [1102, 1134, 1072, 1081, 1089, 1114, 1121, 1146],
     [1069, 1083, 1085, 1086, 1093, 1125, 1072, 1081],
     [1089, 1114, 1121, 1146, 1069, 1083, 1085, 1086],
     [1072, 1081, 1089, 1114, 1121, 1146, 1069, 1083],
     [1085, 1086, 1091, 1123, 1072, 1081, 1089, 1114],
     [1121, 1146, 1069, 1083, 1085, 1086, 1103, 1135],
     [1072, 1081, 1089, 1114, 1121, 1146, 1069, 1083],
     [1085, 1086, 1102, 1134, 1072, 1081, 1089, 1114],
     [1121, 1146, 1069, 1083, 1085, 1086, 1108, 1140],
     [1072, 1081, 1089, 1114, 1121, 1146, 1069, 1083],
     [1085, 1086, 1093, 1125, 1072, 1081, 1089, 1114],
     [1121, 1146, 1069, 1083, 1085, 1086, 1112, 1144],
     [1072, 1081, 1089, 1114, 1121, 1146, 1069, 1083],
     [1085, 1086, 1108, 1140, 1072, 1081, 1089, 1114],
     [1121, 1146, 1069, 1083, 1085, 1086, 1072, 1081],
     [1089, 1114, 1121, 1146, 1057, 1061, 1067, 1082],
     [1115, 1117, 1119, 1150, 1060, 1066, 1069, 1071],
     [1072, 1081, 1089, 1114, 1121, 1146, 1057, 1061],
     [1071, 1082, 1083, 1086, 1117, 1119, 1150, 1060],
     [1063, 1064, 1065, 1066, 1067, 1069, 1070, 1072],
     [1081, 1089, 1115, 1121, 1146, 1057, 1061, 1071],
     [1082, 1083, 1086, 1117, 1119, 1150, 1060, 1063],
     [1064, 1065, 1066, 1067, 1069, 1081, 1089, 1115],
     [1121, 1146, 1057, 1061, 1069, 1070, 1071, 1082],
     [1083, 1086, 1115, 1117, 1119, 1150, 1060, 1067],
     [1072, 1081, 1089, 1114, 1121, 1146, 1057, 1061],
     [1069, 1082, 1083, 1086, 1115, 1117, 1119, 1150],
     [1060, 1067, 1070, 1071, 1072, 1081, 1089, 1114],
     [1121, 1146, 1057, 1061, 1082, 1083, 1086, 1115],
     [1117, 1119, 1150, 1060, 1067, 1069, 1071, 1072],
     [1081, 1089, 1114, 1121, 1146, 1057, 1061, 1069],
     [1070, 1071, 1082, 1083, 1086, 1115, 1117, 1119],
     [1150, 1060, 1067, 1072, 1081, 1089, 1114, 1121],
     [1146, 1057, 1061, 1069, 1082, 1083, 1086, 1115],
     [1117, 1119, 1150, 1060, 1067, 1070, 1071, 1072],
     [1081, 1089, 1114, 1121, 1146, 1057, 1061, 1082],
     [1083, 1086, 1115, 1117, 1119, 1150, 1060, 1067],
     [1069, 1071, 1072, 1081, 1089, 1114, 1121, 1146],
     [1059, 1066, 1064, 1065, 1069, 1070, 1072, 1081],
     [1089, 1094, 1121, 1126, 1064, 1065, 1069, 1070],
     [1072, 1081, 1083, 1086, 1064, 1065, 1069, 1070],
     [1072, 1081, 1033, 1037, 1056, 1057, 1061, 1063],
     [1084, 1150, 1066, 1067, 1069, 1070, 1072, 1081],
     [1089, 1114, 1119, 1146, 1033, 1037, 1056, 1057],
     [1061, 1063, 1084, 1150, 1066, 1067, 1069, 1070],
     [1072, 1081, 1089, 1114, 1119, 1146, 1034, 1033],
     [1056, 1033, 1056, 1057, 1061, 1063, 1084, 1150],
     [1066, 1067, 1069, 1070, 1072, 1081, 1089, 1114],
     [1119, 1146, 1033, 1037, 1058, 1116, 960, 991],
     [992, 1007, 1008, 1015, 1016, 1019, 1020, 1021],
     [1056, 1150, 896, 959, 896, 959, 896, 959],
     [896, 959, 896, 959, 1034, 1033, 1056, 1033],
     [1037, 1056, 1084, 1024, 1033, 1035, 1036, 1038],
     [1151, 555, 570, 557, 558, 560, 569, 577],
     [602, 609, 634, 0, 545, 547, 549, 559],
     [570, 573, 576, 603, 607, 638, 548, 571],
     [575, 602, 609, 634, 0, 545, 547, 549],
     [570, 573, 576, 607, 638, 548, 571, 575],
     [602, 609, 634, 545, 549, 570, 573, 576],
     [607, 638, 547, 571, 575, 602, 609, 634],
     [560, 569, 577, 582, 609, 614, 560, 569],
     [577, 582, 609, 614, 545, 549, 573, 576],
     [607, 638, 548, 558, 560, 569, 577, 602],
     [609, 634, 560, 569, 577, 582, 609, 614],
     [560, 569, 577, 582, 609, 614, 560, 561],
     [562, 603, 563, 569, 577, 602, 609, 634],
     [557, 558, 607, 560, 569, 577, 602, 609],
     [634, 557, 607, 560, 569, 577, 602, 609],
     [634, 557, 558, 607, 560, 569, 577, 602],
     [609, 634, 560, 569, 577, 602, 609, 634],
     [0, 557, 558, 570, 575, 607, 560, 569],
     [577, 602, 609, 634, 557, 607, 560, 569],
     [577, 602, 609, 634, 0, 570, 575, 560],
     [569, 577, 602, 609, 634, 560, 566, 561],
     [565, 567, 569, 560, 561, 569, 560, 561],
     [569, 561, 569, 0, 575, 0, 545, 549],
     [573, 607, 638, 548, 571, 575, 602, 609],
     [634, 560, 569, 577, 582, 609, 614, 560],
     [569, 577, 582, 609, 614, 0, 575, 560],
     [569, 0, 575, 560, 569, 0, 575, 560],
     [569, 0, 575, 560, 569, 0, 565, 575],
     [560, 564, 566, 569, 0, 565, 575, 560],
     [564, 566, 569, 0, 563, 575, 560, 562],
     [564, 569, 0, 575, 560, 565, 560, 561],
     [562, 563, 569, 577, 602, 609, 634, 557],
     [558, 607, 560, 569, 577, 602, 609, 634],
     [560, 561, 562, 563, 569, 577, 602, 609],
     [634, 557, 558, 607, 560, 569, 577, 602],
     [609, 634, 560, 561, 562, 563, 569, 577],
     [602, 609, 634, 0, 557, 558, 570, 575],
     [607, 560, 569, 577, 602, 609, 634, 0],
     [557, 558, 570, 575, 607, 560, 569, 577],
     [602, 609, 634, 0, 557, 558, 570, 575],
     [607, 560, 569, 577, 602, 609, 634, 0],
     [557, 558, 565, 570, 575, 607, 560, 564],
     [566, 569, 577, 602, 609, 634, 0, 557],
     [558, 570, 575, 607, 560, 565, 566, 569],
     [577, 602, 609, 634, 557, 558, 607, 560],
     [569, 577, 602, 609, 634, 557, 558, 607],
     [560, 569, 577, 602, 609, 634, 557, 558],
     [565, 607, 560, 564, 566, 569, 577, 602],
     [609, 634, 557, 558, 607, 560, 565, 566],
     [569, 577, 602, 609, 634, 557, 558, 607],
     [560, 569, 577, 602, 609, 634, 557, 558],
     [607, 560, 569, 577, 602, 609, 634, 557],
     [558, 565, 607, 560, 564, 566, 569, 577],
     [602, 609, 634, 557, 558, 607, 560, 565],
     [566, 569, 577, 602, 609, 634, 557, 558],
     [607, 560, 569, 577, 602, 609, 634, 557],
     [558, 607, 560, 569, 577, 602, 609, 634],
     [557, 558, 565, 607, 560, 564, 566, 569],
     [577, 602, 609, 634, 557, 558, 607, 560],
     [565, 566, 569, 577, 602, 609, 634, 570],
     [560, 569, 577, 582, 609, 614, 570, 560],
     [569, 577, 582, 609, 614, 570, 560, 569],
     [577, 582, 609, 614, 570, 560, 569, 577],
     [582, 609, 614, 570, 570, 560, 569, 577],
     [582, 609, 614, 570, 560, 569, 577, 582],
     [609, 614, 570, 560, 569, 577, 582, 609],
     [614, 570, 560, 569, 577, 582, 609, 614],
     [570, 570, 560, 569, 577, 582, 609, 614],
     [570, 560, 569, 577, 582, 609, 614, 570],
     [560, 569, 577, 582, 609, 614, 570, 560],
     [569, 577, 582, 609, 614, 570, 570, 560],
     [569, 577, 582, 609, 614, 570, 560, 569],
     [577, 582, 609, 614, 570, 560, 569, 577],
     [582, 609, 614, 570, 560, 569, 577, 582],
     [609, 614, 570, 570, 560, 569, 577, 582],
     [609, 614, 570, 560, 569, 577, 582, 609],
     [614, 570, 560, 569, 577, 582, 609, 614],
     [570, 560, 569, 577, 582, 609, 614, 570],
     [570, 560, 569, 577, 582, 609, 614, 570],
     [560, 569, 577, 582, 609, 614, 570, 560],
     [569, 577, 582, 609, 614, 570, 560, 569]]"

definition sup_trans_keys_10 :: "int list list" where
  "sup_trans_keys_10 =
    [[577, 582, 609, 614, 570, 560, 561, 562],
     [570, 563, 569, 577, 582, 609, 614, 558],
     [570, 560, 569, 577, 582, 609, 614, 560],
     [561, 562, 563, 569, 558, 560, 561, 562],
     [563, 569, 558, 560, 561, 562, 563, 569],
     [605, 0, 570, 575, 605, 560, 569, 605],
     [560, 569, 565, 605, 560, 564, 566, 569],
     [605, 560, 565, 558, 560, 569, 558, 560],
     [569, 558, 565, 560, 564, 566, 569, 558],
     [560, 565, 558, 560, 569, 558, 560, 569],
     [558, 565, 560, 564, 566, 569, 558, 560],
     [565, 570, 560, 569, 577, 582, 609, 614],
     [570, 560, 569, 577, 582, 609, 614, 570],
     [570, 560, 569, 577, 582, 609, 614, 605],
     [560, 569, 577, 582, 609, 614, 605, 560],
     [569, 577, 582, 609, 614, 605, 560, 569],
     [577, 582, 609, 614, 558, 570, 560, 569],
     [577, 582, 609, 614, 558, 570, 560, 569],
     [577, 582, 609, 614, 558, 570, 560, 569],
     [577, 582, 609, 614, 558, 565, 570, 560],
     [564, 566, 569, 577, 582, 609, 614, 558],
     [570, 560, 565, 566, 569, 577, 582, 609],
     [614, 558, 570, 560, 569, 577, 582, 609],
     [614, 558, 570, 560, 569, 577, 582, 609],
     [614, 605, 560, 569, 577, 582, 609, 614],
     [570, 560, 569, 577, 582, 609, 614, 560],
     [561, 562, 605, 563, 569, 577, 582, 609],
     [614, 558, 570, 605, 560, 569, 577, 582],
     [609, 614, 570, 605, 560, 569, 577, 582],
     [609, 614, 570, 605, 560, 569, 577, 582],
     [609, 614, 570, 605, 560, 569, 577, 582],
     [609, 614, 558, 570, 605, 560, 569, 577],
     [582, 609, 614, 558, 570, 605, 560, 569],
     [577, 582, 609, 614, 558, 570, 605, 560],
     [569, 577, 582, 609, 614, 558, 565, 570],
     [605, 560, 564, 566, 569, 577, 582, 609],
     [614, 558, 570, 605, 560, 565, 566, 569],
     [577, 582, 609, 614, 558, 570, 605, 560],
     [569, 577, 582, 609, 614, 558, 570, 605],
     [560, 569, 577, 582, 609, 614, 570, 605],
     [560, 569, 577, 582, 609, 614, 560, 561],
     [562, 605, 563, 569, 577, 582, 609, 614],
     [558, 570, 605, 560, 569, 577, 582, 609],
     [614, 570, 605, 560, 569, 577, 582, 609],
     [614, 570, 605, 560, 569, 577, 582, 609],
     [614, 570, 605, 560, 561, 562, 563, 569],
     [577, 582, 609, 614, 558, 570, 605, 560],
     [569, 577, 582, 609, 614, 558, 570, 605],
     [560, 569, 577, 582, 609, 614, 558, 570],
     [605, 560, 569, 577, 582, 609, 614, 558],
     [565, 570, 605, 560, 564, 566, 569, 577],
     [582, 609, 614, 558, 570, 605, 560, 565],
     [566, 569, 577, 582, 609, 614, 558, 570],
     [605, 560, 569, 577, 582, 609, 614, 558],
     [570, 605, 560, 569, 577, 582, 609, 614],
     [570, 605, 560, 569, 577, 582, 609, 614],
     [560, 561, 562, 605, 563, 569, 577, 582],
     [609, 614, 558, 570, 605, 560, 569, 577],
     [582, 609, 614, 570, 605, 560, 569, 577],
     [582, 609, 614, 570, 605, 560, 569, 577],
     [582, 609, 614, 570, 605, 560, 561, 562],
     [563, 569, 577, 582, 609, 614, 558, 570],
     [605, 560, 569, 577, 582, 609, 614, 558],
     [570, 605, 560, 569, 577, 582, 609, 614],
     [558, 570, 605, 560, 569, 577, 582, 609],
     [614, 558, 565, 570, 605, 560, 564, 566],
     [569, 577, 582, 609, 614, 558, 570, 605],
     [560, 565, 566, 569, 577, 582, 609, 614],
     [558, 570, 605, 560, 569, 577, 582, 609],
     [614, 558, 570, 605, 560, 569, 577, 582],
     [609, 614, 570, 605, 560, 569, 577, 582],
     [609, 614, 560, 561, 562, 605, 563, 569],
     [577, 582, 609, 614, 558, 570, 605, 560],
     [569, 577, 582, 609, 614, 570, 605, 560],
     [569, 577, 582, 609, 614, 570, 605, 560],
     [569, 577, 582, 609, 614, 570, 605, 560],
     [561, 562, 563, 569, 577, 582, 609, 614],
     [558, 570, 605, 560, 569, 577, 582, 609],
     [614, 558, 570, 605, 560, 569, 577, 582],
     [609, 614, 558, 570, 605, 560, 569, 577],
     [582, 609, 614, 558, 565, 570, 605, 560],
     [564, 566, 569, 577, 582, 609, 614, 558],
     [570, 605, 560, 565, 566, 569, 577, 582],
     [609, 614, 558, 570, 605, 560, 569, 577],
     [582, 609, 614, 558, 570, 605, 560, 569],
     [577, 582, 609, 614, 570, 605, 560, 569],
     [577, 582, 609, 614, 560, 561, 562, 605],
     [563, 569, 577, 582, 609, 614, 558, 570],
     [605, 560, 569, 577, 582, 609, 614, 570],
     [605, 560, 569, 577, 582, 609, 614, 570],
     [605, 560, 569, 577, 582, 609, 614, 570],
     [605, 560, 561, 562, 563, 569, 577, 582],
     [609, 614, 558, 570, 605, 560, 569, 577],
     [582, 609, 614, 558, 570, 605, 560, 569],
     [577, 582, 609, 614, 558, 570, 605, 560],
     [569, 577, 582, 609, 614, 558, 565, 570],
     [605, 560, 564, 566, 569, 577, 582, 609],
     [614, 558, 570, 605, 560, 565, 566, 569],
     [577, 582, 609, 614, 558, 570, 605, 560],
     [569, 577, 582, 609, 614, 558, 570, 605],
     [560, 569, 577, 582, 609, 614, 570, 605],
     [560, 569, 577, 582, 609, 614, 570, 560],
     [561, 562, 605, 563, 569, 577, 582, 609],
     [614, 558, 570, 605, 560, 569, 577, 582],
     [609, 614, 570, 605, 560, 569, 577, 582],
     [609, 614, 570, 605, 560, 569, 577, 582],
     [609, 614, 570, 605, 560, 561, 562, 563],
     [569, 577, 582, 609, 614, 558, 570, 605],
     [560, 569, 577, 582, 609, 614, 558, 570],
     [605, 560, 569, 577, 582, 609, 614, 558],
     [570, 605, 560, 569, 577, 582, 609, 614],
     [558, 565, 570, 605, 560, 564, 566, 569],
     [577, 582, 609, 614, 558, 570, 605, 560],
     [565, 566, 569, 577, 582, 609, 614, 558],
     [570, 605, 560, 569, 577, 582, 609, 614],
     [558, 570, 605, 560, 569, 577, 582, 609],
     [614, 570, 605, 560, 569, 577, 582, 609],
     [614, 560, 569, 577, 582, 609, 614, 560],
     [569, 577, 582, 609, 614, 0, 545, 549],
     [559, 573, 575, 576, 607, 638, 548, 569],
     [570, 571, 577, 602, 609, 634, 560, 569],
     [577, 582, 609, 614, 560, 569, 577, 582],
     [609, 614, 0, 545, 549, 573, 603, 607],
     [638, 548, 571, 575, 602, 609, 634, 0],
     [545, 547, 549, 559, 570, 573, 576, 607],
     [638, 548, 571, 575, 602, 609, 634, 0],
     [545, 547, 549, 570, 573, 576, 603, 607],
     [638, 548, 571, 575, 602, 609, 634, 0],
     [545, 547, 549, 570, 573, 576, 607, 638],
     [548, 571, 575, 602, 609, 634, 545, 549],
     [570, 573, 576, 607, 638, 547, 571, 575],
     [602, 609, 634, 560, 569, 577, 582, 609],
     [614, 560, 569, 577, 582, 609, 614, 545],
     [549, 573, 576, 607, 638, 548, 558, 560],
     [569, 577, 602, 609, 634, 560, 569, 577],
     [582, 609, 614, 560, 569, 577, 582, 609],
     [614, 560, 561, 562, 603, 563, 569, 577],
     [602, 609, 634, 557, 558, 607, 560, 569],
     [577, 602, 609, 634, 557, 607, 560, 569],
     [577, 602, 609, 634, 557, 558, 607, 560],
     [569, 577, 602, 609, 634, 560, 569, 577],
     [602, 609, 634, 0, 557, 558, 559, 570],
     [575, 607, 560, 569, 577, 602, 609, 634],
     [557, 607, 560, 569, 577, 602, 609, 634],
     [0, 559, 570, 575, 560, 569, 577, 602],
     [609, 634, 560, 566, 561, 565, 567, 569],
     [560, 561, 569, 560, 561, 569, 561, 569],
     [0, 559, 575, 0, 559, 575, 560, 569],
     [0, 559, 575, 560, 569, 0, 559, 575],
     [560, 569, 0, 559, 575, 560, 569, 0]]"

definition sup_trans_keys_11 :: "int list list" where
  "sup_trans_keys_11 =
    [[559, 565, 575, 560, 564, 566, 569, 0],
     [559, 565, 575, 560, 564, 566, 569, 0],
     [559, 563, 575, 560, 562, 564, 569, 0],
     [559, 575, 560, 565, 560, 561, 562, 563],
     [569, 577, 602, 609, 634, 557, 558, 607],
     [560, 569, 577, 602, 609, 634, 560, 561],
     [562, 563, 569, 577, 602, 609, 634, 557],
     [558, 607, 560, 569, 577, 602, 609, 634],
     [560, 561, 562, 563, 569, 577, 602, 609],
     [634, 0, 557, 558, 559, 570, 575, 607],
     [560, 569, 577, 602, 609, 634, 0, 557],
     [558, 559, 570, 575, 607, 560, 569, 577],
     [602, 609, 634, 0, 557, 558, 559, 570],
     [575, 607, 560, 569, 577, 602, 609, 634],
     [0, 557, 558, 559, 565, 570, 575, 607],
     [560, 564, 566, 569, 577, 602, 609, 634],
     [0, 557, 558, 559, 570, 575, 607, 560],
     [565, 566, 569, 577, 602, 609, 634, 557],
     [558, 607, 560, 569, 577, 602, 609, 634],
     [557, 558, 607, 560, 569, 577, 602, 609],
     [634, 557, 558, 565, 607, 560, 564, 566],
     [569, 577, 602, 609, 634, 557, 558, 607],
     [560, 565, 566, 569, 577, 602, 609, 634],
     [557, 558, 607, 560, 569, 577, 602, 609],
     [634, 557, 558, 607, 560, 569, 577, 602],
     [609, 634, 557, 558, 565, 607, 560, 564],
     [566, 569, 577, 602, 609, 634, 557, 558],
     [607, 560, 565, 566, 569, 577, 602, 609],
     [634, 557, 558, 607, 560, 569, 577, 602],
     [609, 634, 557, 558, 607, 560, 569, 577],
     [602, 609, 634, 557, 558, 565, 607, 560],
     [564, 566, 569, 577, 602, 609, 634, 557],
     [558, 607, 560, 565, 566, 569, 577, 602],
     [609, 634, 570, 560, 569, 577, 582, 609],
     [614, 570, 560, 569, 577, 582, 609, 614],
     [570, 560, 569, 577, 582, 609, 614, 570],
     [560, 569, 577, 582, 609, 614, 570, 570],
     [560, 569, 577, 582, 609, 614, 570, 560],
     [569, 577, 582, 609, 614, 570, 560, 569],
     [577, 582, 609, 614, 570, 560, 569, 577],
     [582, 609, 614, 570, 570, 560, 569, 577],
     [582, 609, 614, 570, 560, 569, 577, 582],
     [609, 614, 570, 560, 569, 577, 582, 609],
     [614, 570, 560, 569, 577, 582, 609, 614],
     [570, 570, 560, 569, 577, 582, 609, 614],
     [570, 560, 569, 577, 582, 609, 614, 570],
     [560, 569, 577, 582, 609, 614, 570, 560],
     [569, 577, 582, 609, 614, 570, 570, 560],
     [569, 577, 582, 609, 614, 570, 560, 569],
     [577, 582, 609, 614, 570, 560, 569, 577],
     [582, 609, 614, 570, 560, 569, 577, 582],
     [609, 614, 570, 570, 560, 569, 577, 582],
     [609, 614, 570, 560, 569, 577, 582, 609],
     [614, 570, 560, 569, 577, 582, 609, 614],
     [570, 560, 569, 577, 582, 609, 614, 570],
     [560, 561, 562, 570, 563, 569, 577, 582],
     [609, 614, 558, 570, 560, 569, 577, 582],
     [609, 614, 560, 561, 562, 563, 569, 558],
     [560, 561, 562, 563, 569, 558, 560, 561],
     [562, 563, 569, 605, 0, 559, 570, 575],
     [605, 560, 569, 605, 560, 569, 565, 605],
     [560, 564, 566, 569, 605, 560, 565, 558],
     [560, 569, 558, 560, 569, 558, 565, 560],
     [564, 566, 569, 558, 560, 565, 558, 560],
     [569, 558, 560, 569, 558, 565, 560, 564],
     [566, 569, 558, 560, 565, 570, 560, 569],
     [577, 582, 609, 614, 570, 560, 569, 577],
     [582, 609, 614, 570, 570, 560, 569, 577],
     [582, 609, 614, 605, 560, 569, 577, 582],
     [609, 614, 605, 560, 569, 577, 582, 609],
     [614, 605, 560, 569, 577, 582, 609, 614],
     [558, 570, 560, 569, 577, 582, 609, 614],
     [558, 570, 560, 569, 577, 582, 609, 614],
     [558, 570, 560, 569, 577, 582, 609, 614],
     [558, 565, 570, 560, 564, 566, 569, 577],
     [582, 609, 614, 558, 570, 560, 565, 566],
     [569, 577, 582, 609, 614, 558, 570, 560],
     [569, 577, 582, 609, 614, 558, 570, 560],
     [569, 577, 582, 609, 614, 605, 560, 569],
     [577, 582, 609, 614, 570, 560, 569, 577],
     [582, 609, 614, 560, 561, 562, 605, 563],
     [569, 577, 582, 609, 614, 558, 570, 605],
     [560, 569, 577, 582, 609, 614, 570, 605],
     [560, 569, 577, 582, 609, 614, 570, 605],
     [560, 569, 577, 582, 609, 614, 570, 605],
     [560, 569, 577, 582, 609, 614, 558, 570],
     [605, 560, 569, 577, 582, 609, 614, 558],
     [570, 605, 560, 569, 577, 582, 609, 614],
     [558, 570, 605, 560, 569, 577, 582, 609],
     [614, 558, 565, 570, 605, 560, 564, 566],
     [569, 577, 582, 609, 614, 558, 570, 605],
     [560, 565, 566, 569, 577, 582, 609, 614],
     [558, 570, 605, 560, 569, 577, 582, 609],
     [614, 558, 570, 605, 560, 569, 577, 582],
     [609, 614, 570, 605, 560, 569, 577, 582],
     [609, 614, 560, 561, 562, 605, 563, 569],
     [577, 582, 609, 614, 558, 570, 605, 560],
     [569, 577, 582, 609, 614, 570, 605, 560],
     [569, 577, 582, 609, 614, 570, 605, 560],
     [569, 577, 582, 609, 614, 570, 605, 560],
     [561, 562, 563, 569, 577, 582, 609, 614],
     [558, 570, 605, 560, 569, 577, 582, 609],
     [614, 558, 570, 605, 560, 569, 577, 582],
     [609, 614, 558, 570, 605, 560, 569, 577],
     [582, 609, 614, 558, 565, 570, 605, 560],
     [564, 566, 569, 577, 582, 609, 614, 558],
     [570, 605, 560, 565, 566, 569, 577, 582],
     [609, 614, 558, 570, 605, 560, 569, 577],
     [582, 609, 614, 558, 570, 605, 560, 569],
     [577, 582, 609, 614, 570, 605, 560, 569],
     [577, 582, 609, 614, 560, 561, 562, 605],
     [563, 569, 577, 582, 609, 614, 558, 570],
     [605, 560, 569, 577, 582, 609, 614, 570],
     [605, 560, 569, 577, 582, 609, 614, 570],
     [605, 560, 569, 577, 582, 609, 614, 570],
     [605, 560, 561, 562, 563, 569, 577, 582],
     [609, 614, 558, 570, 605, 560, 569, 577],
     [582, 609, 614, 558, 570, 605, 560, 569],
     [577, 582, 609, 614, 558, 570, 605, 560],
     [569, 577, 582, 609, 614, 558, 565, 570],
     [605, 560, 564, 566, 569, 577, 582, 609],
     [614, 558, 570, 605, 560, 565, 566, 569],
     [577, 582, 609, 614, 558, 570, 605, 560],
     [569, 577, 582, 609, 614, 558, 570, 605],
     [560, 569, 577, 582, 609, 614, 570, 605],
     [560, 569, 577, 582, 609, 614, 560, 561],
     [562, 605, 563, 569, 577, 582, 609, 614],
     [558, 570, 605, 560, 569, 577, 582, 609],
     [614, 570, 605, 560, 569, 577, 582, 609],
     [614, 570, 605, 560, 569, 577, 582, 609],
     [614, 570, 605, 560, 561, 562, 563, 569],
     [577, 582, 609, 614, 558, 570, 605, 560],
     [569, 577, 582, 609, 614, 558, 570, 605],
     [560, 569, 577, 582, 609, 614, 558, 570],
     [605, 560, 569, 577, 582, 609, 614, 558],
     [565, 570, 605, 560, 564, 566, 569, 577],
     [582, 609, 614, 558, 570, 605, 560, 565],
     [566, 569, 577, 582, 609, 614, 558, 570],
     [605, 560, 569, 577, 582, 609, 614, 558],
     [570, 605, 560, 569, 577, 582, 609, 614],
     [570, 605, 560, 569, 577, 582, 609, 614],
     [560, 561, 562, 605, 563, 569, 577, 582],
     [609, 614, 558, 570, 605, 560, 569, 577],
     [582, 609, 614, 570, 605, 560, 569, 577],
     [582, 609, 614, 570, 605, 560, 569, 577],
     [582, 609, 614, 570, 605, 560, 561, 562],
     [563, 569, 577, 582, 609, 614, 558, 570],
     [605, 560, 569, 577, 582, 609, 614, 558],
     [570, 605, 560, 569, 577, 582, 609, 614],
     [558, 570, 605, 560, 569, 577, 582, 609]]"

definition sup_trans_keys_12 :: "int list list" where
  "sup_trans_keys_12 =
    [[614, 558, 565, 570, 605, 560, 564, 566],
     [569, 577, 582, 609, 614, 558, 570, 605],
     [560, 565, 566, 569, 577, 582, 609, 614],
     [558, 570, 605, 560, 569, 577, 582, 609],
     [614, 558, 570, 605, 560, 569, 577, 582],
     [609, 614, 570, 605, 560, 569, 577, 582],
     [609, 614, 570, 560, 561, 562, 605, 563],
     [569, 577, 582, 609, 614, 558, 570, 605],
     [560, 569, 577, 582, 609, 614, 570, 605],
     [560, 569, 577, 582, 609, 614, 570, 605],
     [560, 569, 577, 582, 609, 614, 570, 605],
     [560, 561, 562, 563, 569, 577, 582, 609],
     [614, 558, 570, 605, 560, 569, 577, 582],
     [609, 614, 558, 570, 605, 560, 569, 577],
     [582, 609, 614, 558, 570, 605, 560, 569],
     [577, 582, 609, 614, 558, 565, 570, 605],
     [560, 564, 566, 569, 577, 582, 609, 614],
     [558, 570, 605, 560, 565, 566, 569, 577],
     [582, 609, 614, 558, 570, 605, 560, 569],
     [577, 582, 609, 614, 558, 570, 605, 560],
     [569, 577, 582, 609, 614, 570, 605, 560],
     [569, 577, 582, 609, 614, 560, 569, 577],
     [582, 609, 614, 560, 569, 577, 582, 609],
     [614, 0, 545, 549, 559, 573, 575, 576],
     [607, 638, 548, 569, 570, 571, 577, 602],
     [609, 634, 560, 569, 577, 582, 609, 614],
     [560, 569, 577, 582, 609, 614, 0, 545],
     [549, 573, 603, 607, 638, 548, 571, 575],
     [602, 609, 634, 555, 570, 585, 617, 557],
     [558, 560, 569, 577, 602, 609, 634, 555],
     [570, 592, 624, 557, 558, 560, 569, 577],
     [602, 609, 634, 555, 570, 595, 627, 557],
     [558, 560, 569, 577, 602, 609, 634, 545],
     [549, 560, 561, 562, 571, 573, 575, 603],
     [607, 638, 547, 559, 563, 569, 577, 602],
     [609, 634, 545, 549, 570, 573, 576, 607],
     [638, 547, 571, 575, 602, 609, 634, 560],
     [569, 577, 582, 609, 614, 560, 569, 577],
     [582, 609, 614, 545, 549, 573, 576, 607],
     [638, 548, 558, 560, 569, 577, 602, 609],
     [634, 560, 569, 577, 582, 609, 614, 560],
     [569, 577, 582, 609, 614, 560, 561, 562],
     [603, 563, 569, 577, 602, 609, 634, 557],
     [558, 607, 560, 569, 577, 602, 609, 634],
     [557, 607, 560, 569, 577, 602, 609, 634],
     [557, 558, 607, 560, 569, 577, 602, 609],
     [634, 560, 569, 577, 602, 609, 634, 0],
     [557, 558, 570, 571, 575, 607, 560, 569],
     [577, 602, 609, 634, 557, 607, 560, 569],
     [577, 602, 609, 634, 0, 570, 571, 575],
     [560, 569, 577, 602, 609, 634, 560, 566],
     [561, 565, 567, 569, 560, 561, 569, 560],
     [561, 569, 561, 569, 0, 571, 575, 545],
     [549, 588, 591, 596, 605, 607, 620, 623],
     [628, 638, 548, 555, 557, 570, 577, 603],
     [609, 634, 0, 545, 549, 571, 573, 575],
     [605, 607, 638, 548, 555, 557, 570, 577],
     [603, 609, 634, 560, 569, 577, 582, 609],
     [614, 560, 569, 577, 582, 609, 614, 0],
     [545, 549, 571, 573, 575, 605, 607, 638],
     [548, 555, 557, 570, 577, 603, 609, 634],
     [0, 545, 549, 571, 575, 605, 607, 638],
     [548, 555, 557, 570, 577, 603, 609, 634],
     [560, 569, 577, 582, 609, 614, 560, 569],
     [577, 582, 609, 614, 545, 548, 549, 575],
     [605, 607, 638, 551, 555, 557, 570, 577],
     [603, 609, 634, 545, 548, 549, 573, 575],
     [605, 607, 638, 551, 555, 557, 570, 577],
     [603, 609, 634, 560, 569, 577, 582, 609],
     [614, 560, 569, 577, 582, 609, 614, 0],
     [545, 549, 550, 575, 605, 607, 638, 548],
     [555, 557, 570, 577, 603, 609, 634, 560],
     [569, 577, 582, 609, 614, 560, 569, 577],
     [582, 609, 614, 545, 549, 605, 607, 638],
     [548, 555, 557, 570, 577, 603, 609, 634],
     [0, 545, 549, 571, 573, 575, 594, 605],
     [607, 626, 638, 548, 555, 557, 570, 577],
     [603, 609, 634, 0, 545, 549, 571, 573],
     [575, 605, 607, 638, 548, 555, 557, 570],
     [577, 603, 609, 634, 0, 545, 549, 551],
     [559, 570, 571, 573, 575, 603, 605, 608],
     [638, 548, 553, 554, 555, 557, 569, 577],
     [602, 607, 634, 0, 545, 549, 551, 559],
     [570, 571, 575, 603, 605, 608, 638, 548],
     [553, 554, 555, 557, 569, 577, 602, 607],
     [634, 0, 545, 549, 551, 571, 575, 638],
     [554, 555, 557, 558, 560, 569, 577, 582],
     [583, 602, 607, 608, 609, 614, 615, 634],
     [0, 545, 549, 551, 571, 575, 638, 554],
     [555, 557, 558, 560, 569, 577, 602, 607],
     [634, 0, 545, 549, 551, 571, 575, 638],
     [554, 555, 557, 558, 560, 569, 577, 582],
     [583, 602, 607, 608, 609, 614, 615, 634],
     [0, 545, 549, 571, 573, 575, 578, 598],
     [605, 607, 610, 630, 638, 548, 555, 557],
     [570, 577, 603, 609, 634, 0, 545, 549],
     [571, 573, 575, 605, 607, 638, 548, 555],
     [557, 570, 577, 603, 609, 634, 0, 545],
     [549, 571, 573, 575, 585, 605, 607, 617],
     [638, 548, 555, 557, 570, 577, 603, 609],
     [634, 0, 545, 549, 571, 573, 575, 580],
     [605, 607, 612, 638, 548, 555, 557, 570],
     [577, 603, 609, 634, 0, 545, 549, 571],
     [573, 575, 605, 607, 638, 548, 555, 557],
     [570, 577, 603, 609, 634, 0, 545, 549],
     [551, 559, 570, 571, 573, 575, 603, 605],
     [608, 638, 548, 553, 554, 555, 557, 569],
     [577, 602, 607, 634, 0, 545, 549, 551],
     [559, 570, 571, 575, 603, 605, 608, 638],
     [548, 553, 554, 555, 557, 569, 577, 602],
     [607, 634, 0, 545, 549, 551, 571, 575],
     [638, 554, 555, 557, 558, 560, 569, 577],
     [582, 583, 602, 607, 608, 609, 614, 615],
     [634, 0, 545, 549, 551, 571, 575, 638],
     [554, 555, 557, 558, 560, 569, 577, 602],
     [607, 634, 0, 545, 549, 551, 571, 575],
     [638, 554, 555, 557, 558, 560, 569, 577],
     [582, 583, 602, 607, 608, 609, 614, 615],
     [634, 0, 545, 549, 571, 573, 575, 594],
     [605, 607, 626, 638, 548, 555, 557, 570],
     [577, 603, 609, 634, 0, 545, 549, 571],
     [573, 575, 577, 605, 607, 609, 638, 548],
     [555, 557, 570, 578, 603, 610, 634, 0],
     [545, 549, 571, 573, 575, 590, 605, 607],
     [622, 638, 548, 555, 557, 570, 577, 603],
     [609, 634, 0, 545, 549, 571, 573, 575],
     [595, 605, 607, 627, 638, 548, 555, 557],
     [570, 577, 603, 609, 634, 0, 545, 549],
     [571, 573, 575, 592, 605, 607, 624, 638],
     [548, 555, 557, 570, 577, 603, 609, 634],
     [0, 545, 549, 571, 573, 575, 591, 605],
     [607, 623, 638, 548, 555, 557, 570, 577],
     [603, 609, 634, 0, 545, 549, 571, 573],
     [575, 594, 605, 607, 626, 638, 548, 555],
     [557, 570, 577, 603, 609, 634, 0, 545],
     [549, 571, 573, 575, 596, 605, 607, 628],
     [638, 548, 555, 557, 570, 577, 603, 609],
     [634, 0, 545, 549, 571, 573, 575, 605],
     [607, 638, 548, 555, 557, 570, 577, 603],
     [609, 634, 0, 545, 549, 551, 559, 570],
     [571, 573, 575, 595, 596, 597, 599, 603],
     [605, 608, 627, 628, 629, 631, 638, 548],
     [553, 554, 555, 557, 569, 577, 602, 607],
     [634, 0, 545, 549, 551, 559, 570, 571],
     [575, 603, 605, 608, 638, 548, 553, 554],
     [555, 557, 569, 577, 602, 607, 634, 0],
     [545, 549, 551, 571, 575, 638, 554, 555],
     [557, 558, 560, 569, 577, 582, 583, 602],
     [607, 608, 609, 614, 615, 634, 0, 545],
     [549, 551, 571, 575, 638, 554, 555, 557]]"

definition sup_trans_keys_13 :: "int list list" where
  "sup_trans_keys_13 =
    [[558, 560, 569, 577, 602, 607, 634, 0],
     [545, 549, 551, 571, 575, 638, 554, 555],
     [557, 558, 560, 569, 577, 582, 583, 602],
     [607, 608, 609, 614, 615, 634, 0, 545],
     [549, 551, 559, 570, 571, 575, 579, 603],
     [605, 608, 611, 638, 548, 553, 554, 555],
     [557, 569, 577, 602, 607, 634, 0, 545],
     [549, 551, 559, 570, 571, 575, 596, 603],
     [605, 608, 628, 638, 548, 553, 554, 555],
     [557, 569, 577, 602, 607, 634, 0, 545],
     [549, 551, 559, 570, 571, 575, 592, 603],
     [605, 608, 624, 638, 548, 553, 554, 555],
     [557, 569, 577, 602, 607, 634, 0, 545],
     [549, 551, 559, 570, 571, 575, 603, 605],
     [608, 638, 548, 553, 554, 555, 557, 569],
     [577, 602, 607, 634, 0, 545, 549, 551],
     [559, 570, 571, 575, 579, 588, 603, 605],
     [608, 611, 620, 638, 548, 553, 554, 555],
     [557, 569, 577, 602, 607, 634, 0, 545],
     [549, 551, 559, 570, 571, 575, 592, 603],
     [605, 608, 624, 638, 548, 553, 554, 555],
     [557, 569, 577, 602, 607, 634, 0, 545],
     [549, 551, 559, 570, 571, 575, 603, 605],
     [608, 638, 548, 553, 554, 555, 557, 569],
     [577, 602, 607, 634, 0, 545, 549, 551],
     [559, 570, 571, 575, 595, 603, 605, 608],
     [627, 638, 548, 553, 554, 555, 557, 569],
     [577, 602, 607, 634, 0, 545, 549, 551],
     [559, 570, 571, 575, 603, 605, 608, 638],
     [548, 553, 554, 555, 557, 569, 577, 602],
     [607, 634, 0, 545, 549, 551, 559, 570],
     [571, 575, 580, 603, 605, 608, 612, 638],
     [548, 553, 554, 555, 557, 569, 577, 602],
     [607, 634, 0, 545, 549, 551, 559, 570],
     [571, 575, 592, 603, 605, 608, 624, 638],
     [548, 553, 554, 555, 557, 569, 577, 602],
     [607, 634, 0, 545, 549, 551, 559, 570],
     [571, 575, 603, 605, 608, 638, 548, 553],
     [554, 555, 557, 569, 577, 602, 607, 634],
     [0, 545, 549, 551, 559, 570, 571, 575],
     [595, 603, 605, 608, 627, 638, 548, 553],
     [554, 555, 557, 569, 577, 602, 607, 634],
     [0, 545, 549, 551, 559, 570, 571, 575],
     [595, 603, 605, 608, 627, 638, 548, 553],
     [554, 555, 557, 569, 577, 602, 607, 634],
     [0, 545, 549, 551, 559, 570, 571, 575],
     [603, 605, 608, 638, 548, 553, 554, 555],
     [557, 569, 577, 602, 607, 634, 0, 571],
     [575, 560, 569, 0, 571, 575, 560, 569],
     [0, 571, 575, 560, 569, 0, 571, 575],
     [560, 569, 0, 565, 571, 575, 560, 564],
     [566, 569, 0, 565, 571, 575, 560, 564],
     [566, 569, 0, 563, 571, 575, 560, 562],
     [564, 569, 0, 571, 575, 560, 565, 560],
     [561, 562, 563, 569, 577, 602, 609, 634],
     [557, 558, 607, 560, 569, 577, 602, 609],
     [634, 560, 561, 562, 563, 569, 577, 602],
     [609, 634, 557, 558, 607, 560, 569, 577],
     [602, 609, 634, 560, 561, 562, 563, 569],
     [577, 602, 609, 634, 0, 557, 558, 570],
     [571, 575, 607, 560, 569, 577, 602, 609],
     [634, 0, 557, 558, 570, 571, 575, 607],
     [560, 569, 577, 602, 609, 634, 0, 557],
     [558, 570, 571, 575, 607, 560, 569, 577],
     [602, 609, 634, 0, 557, 558, 565, 570],
     [571, 575, 607, 560, 564, 566, 569, 577],
     [602, 609, 634, 0, 557, 558, 570, 571],
     [575, 607, 560, 565, 566, 569, 577, 602],
     [609, 634, 557, 558, 607, 560, 569, 577],
     [602, 609, 634, 557, 558, 607, 560, 569],
     [577, 602, 609, 634, 557, 558, 565, 607],
     [560, 564, 566, 569, 577, 602, 609, 634],
     [557, 558, 607, 560, 565, 566, 569, 577],
     [602, 609, 634, 557, 558, 607, 560, 569],
     [577, 602, 609, 634, 557, 558, 607, 560],
     [569, 577, 602, 609, 634, 557, 558, 565],
     [607, 560, 564, 566, 569, 577, 602, 609],
     [634, 557, 558, 607, 560, 565, 566, 569],
     [577, 602, 609, 634, 557, 558, 607, 560],
     [569, 577, 602, 609, 634, 557, 558, 607],
     [560, 569, 577, 602, 609, 634, 557, 558],
     [565, 607, 560, 564, 566, 569, 577, 602],
     [609, 634, 557, 558, 607, 560, 565, 566],
     [569, 577, 602, 609, 634, 570, 560, 569],
     [577, 582, 609, 614, 570, 560, 569, 577],
     [582, 609, 614, 570, 560, 569, 577, 582],
     [609, 614, 570, 560, 569, 577, 582, 609],
     [614, 570, 570, 560, 569, 577, 582, 609],
     [614, 570, 560, 569, 577, 582, 609, 614],
     [570, 560, 569, 577, 582, 609, 614, 570],
     [560, 569, 577, 582, 609, 614, 570, 570],
     [560, 569, 577, 582, 609, 614, 570, 560],
     [569, 577, 582, 609, 614, 570, 560, 569],
     [577, 582, 609, 614, 570, 560, 569, 577],
     [582, 609, 614, 570, 570, 560, 569, 577],
     [582, 609, 614, 570, 560, 569, 577, 582],
     [609, 614, 570, 560, 569, 577, 582, 609],
     [614, 570, 560, 569, 577, 582, 609, 614],
     [570, 570, 560, 569, 577, 582, 609, 614],
     [570, 560, 569, 577, 582, 609, 614, 570],
     [560, 569, 577, 582, 609, 614, 570, 560],
     [569, 577, 582, 609, 614, 570, 570, 560],
     [569, 577, 582, 609, 614, 570, 560, 569],
     [577, 582, 609, 614, 570, 560, 569, 577],
     [582, 609, 614, 570, 560, 569, 577, 582],
     [609, 614, 570, 560, 561, 562, 570, 563],
     [569, 577, 582, 609, 614, 558, 570, 560],
     [569, 577, 582, 609, 614, 560, 561, 562],
     [563, 569, 558, 560, 561, 562, 563, 569],
     [558, 560, 561, 562, 563, 569, 605, 0],
     [570, 571, 575, 605, 560, 569, 605, 560],
     [569, 565, 605, 560, 564, 566, 569, 605],
     [560, 565, 558, 560, 569, 558, 560, 569],
     [558, 565, 560, 564, 566, 569, 558, 560],
     [565, 558, 560, 569, 558, 560, 569, 558],
     [565, 560, 564, 566, 569, 558, 560, 565],
     [570, 560, 569, 577, 582, 609, 614, 570],
     [560, 569, 577, 582, 609, 614, 570, 570],
     [560, 569, 577, 582, 609, 614, 605, 560],
     [569, 577, 582, 609, 614, 605, 560, 569],
     [577, 582, 609, 614, 605, 560, 569, 577],
     [582, 609, 614, 558, 570, 560, 569, 577],
     [582, 609, 614, 558, 570, 560, 569, 577],
     [582, 609, 614, 558, 570, 560, 569, 577],
     [582, 609, 614, 558, 565, 570, 560, 564],
     [566, 569, 577, 582, 609, 614, 558, 570],
     [560, 565, 566, 569, 577, 582, 609, 614],
     [558, 570, 560, 569, 577, 582, 609, 614],
     [558, 570, 560, 569, 577, 582, 609, 614],
     [605, 560, 569, 577, 582, 609, 614, 570],
     [560, 569, 577, 582, 609, 614, 560, 561],
     [562, 605, 563, 569, 577, 582, 609, 614],
     [558, 570, 605, 560, 569, 577, 582, 609],
     [614, 570, 605, 560, 569, 577, 582, 609],
     [614, 570, 605, 560, 569, 577, 582, 609],
     [614, 570, 605, 560, 569, 577, 582, 609],
     [614, 558, 570, 605, 560, 569, 577, 582],
     [609, 614, 558, 570, 605, 560, 569, 577],
     [582, 609, 614, 558, 570, 605, 560, 569],
     [577, 582, 609, 614, 558, 565, 570, 605],
     [560, 564, 566, 569, 577, 582, 609, 614],
     [558, 570, 605, 560, 565, 566, 569, 577],
     [582, 609, 614, 558, 570, 605, 560, 569],
     [577, 582, 609, 614, 558, 570, 605, 560],
     [569, 577, 582, 609, 614, 570, 605, 560],
     [569, 577, 582, 609, 614, 560, 561, 562],
     [605, 563, 569, 577, 582, 609, 614, 558],
     [570, 605, 560, 569, 577, 582, 609, 614],
     [570, 605, 560, 569, 577, 582, 609, 614],
     [570, 605, 560, 569, 577, 582, 609, 614]]"

definition sup_trans_keys_14 :: "int list list" where
  "sup_trans_keys_14 =
    [[570, 605, 560, 561, 562, 563, 569, 577],
     [582, 609, 614, 558, 570, 605, 560, 569],
     [577, 582, 609, 614, 558, 570, 605, 560],
     [569, 577, 582, 609, 614, 558, 570, 605],
     [560, 569, 577, 582, 609, 614, 558, 565],
     [570, 605, 560, 564, 566, 569, 577, 582],
     [609, 614, 558, 570, 605, 560, 565, 566],
     [569, 577, 582, 609, 614, 558, 570, 605],
     [560, 569, 577, 582, 609, 614, 558, 570],
     [605, 560, 569, 577, 582, 609, 614, 570],
     [605, 560, 569, 577, 582, 609, 614, 560],
     [561, 562, 605, 563, 569, 577, 582, 609],
     [614, 558, 570, 605, 560, 569, 577, 582],
     [609, 614, 570, 605, 560, 569, 577, 582],
     [609, 614, 570, 605, 560, 569, 577, 582],
     [609, 614, 570, 605, 560, 561, 562, 563],
     [569, 577, 582, 609, 614, 558, 570, 605],
     [560, 569, 577, 582, 609, 614, 558, 570],
     [605, 560, 569, 577, 582, 609, 614, 558],
     [570, 605, 560, 569, 577, 582, 609, 614],
     [558, 565, 570, 605, 560, 564, 566, 569],
     [577, 582, 609, 614, 558, 570, 605, 560],
     [565, 566, 569, 577, 582, 609, 614, 558],
     [570, 605, 560, 569, 577, 582, 609, 614],
     [558, 570, 605, 560, 569, 577, 582, 609],
     [614, 570, 605, 560, 569, 577, 582, 609],
     [614, 560, 561, 562, 605, 563, 569, 577],
     [582, 609, 614, 558, 570, 605, 560, 569],
     [577, 582, 609, 614, 570, 605, 560, 569],
     [577, 582, 609, 614, 570, 605, 560, 569],
     [577, 582, 609, 614, 570, 605, 560, 561],
     [562, 563, 569, 577, 582, 609, 614, 558],
     [570, 605, 560, 569, 577, 582, 609, 614],
     [558, 570, 605, 560, 569, 577, 582, 609],
     [614, 558, 570, 605, 560, 569, 577, 582],
     [609, 614, 558, 565, 570, 605, 560, 564],
     [566, 569, 577, 582, 609, 614, 558, 570],
     [605, 560, 565, 566, 569, 577, 582, 609],
     [614, 558, 570, 605, 560, 569, 577, 582],
     [609, 614, 558, 570, 605, 560, 569, 577],
     [582, 609, 614, 570, 605, 560, 569, 577],
     [582, 609, 614, 560, 561, 562, 605, 563],
     [569, 577, 582, 609, 614, 558, 570, 605],
     [560, 569, 577, 582, 609, 614, 570, 605],
     [560, 569, 577, 582, 609, 614, 570, 605],
     [560, 569, 577, 582, 609, 614, 570, 605],
     [560, 561, 562, 563, 569, 577, 582, 609],
     [614, 558, 570, 605, 560, 569, 577, 582],
     [609, 614, 558, 570, 605, 560, 569, 577],
     [582, 609, 614, 558, 570, 605, 560, 569],
     [577, 582, 609, 614, 558, 565, 570, 605],
     [560, 564, 566, 569, 577, 582, 609, 614],
     [558, 570, 605, 560, 565, 566, 569, 577],
     [582, 609, 614, 558, 570, 605, 560, 569],
     [577, 582, 609, 614, 558, 570, 605, 560],
     [569, 577, 582, 609, 614, 570, 605, 560],
     [569, 577, 582, 609, 614, 570, 560, 561],
     [562, 605, 563, 569, 577, 582, 609, 614],
     [558, 570, 605, 560, 569, 577, 582, 609],
     [614, 570, 605, 560, 569, 577, 582, 609],
     [614, 570, 605, 560, 569, 577, 582, 609],
     [614, 570, 605, 560, 561, 562, 563, 569],
     [577, 582, 609, 614, 558, 570, 605, 560],
     [569, 577, 582, 609, 614, 558, 570, 605],
     [560, 569, 577, 582, 609, 614, 558, 570],
     [605, 560, 569, 577, 582, 609, 614, 558],
     [565, 570, 605, 560, 564, 566, 569, 577],
     [582, 609, 614, 558, 570, 605, 560, 565],
     [566, 569, 577, 582, 609, 614, 558, 570],
     [605, 560, 569, 577, 582, 609, 614, 558],
     [570, 605, 560, 569, 577, 582, 609, 614],
     [570, 605, 560, 569, 577, 582, 609, 614],
     [545, 549, 557, 558, 570, 571, 573, 575],
     [576, 607, 638, 547, 559, 560, 569, 577],
     [602, 609, 634, 545, 549, 557, 570, 571],
     [573, 575, 576, 607, 638, 547, 559, 560],
     [569, 577, 602, 609, 634, 545, 549, 557],
     [558, 570, 571, 573, 575, 576, 607, 638],
     [547, 559, 560, 569, 577, 602, 609, 634],
     [545, 549, 570, 571, 573, 575, 576, 607],
     [638, 547, 559, 560, 569, 577, 602, 609],
     [634, 0, 545, 549, 557, 558, 570, 571],
     [573, 575, 576, 607, 638, 547, 559, 560],
     [569, 577, 602, 609, 634, 545, 549, 557],
     [570, 571, 573, 575, 576, 607, 638, 547],
     [559, 560, 569, 577, 602, 609, 634, 0],
     [545, 549, 570, 571, 573, 575, 576, 607],
     [638, 547, 559, 560, 569, 577, 602, 609],
     [634, 545, 549, 560, 566, 573, 576, 607],
     [638, 548, 558, 561, 565, 567, 569, 577],
     [602, 609, 634, 545, 549, 560, 573, 576],
     [607, 638, 548, 558, 561, 569, 577, 602],
     [609, 634, 545, 549, 560, 573, 576, 607],
     [638, 548, 558, 561, 569, 577, 602, 609],
     [634, 545, 549, 560, 573, 576, 607, 638],
     [548, 558, 561, 569, 577, 602, 609, 634],
     [0, 545, 549, 571, 573, 575, 576, 607],
     [638, 548, 558, 560, 569, 577, 602, 609],
     [634, 0, 545, 549, 571, 573, 575, 576],
     [607, 638, 548, 558, 560, 569, 577, 602],
     [609, 634, 0, 545, 549, 571, 573, 575],
     [576, 607, 638, 548, 558, 560, 569, 577],
     [602, 609, 634, 0, 545, 549, 571, 573],
     [575, 576, 607, 638, 548, 558, 560, 569],
     [577, 602, 609, 634, 0, 545, 549, 571],
     [573, 575, 576, 607, 638, 548, 558, 560],
     [569, 577, 602, 609, 634, 0, 545, 549],
     [565, 571, 573, 575, 576, 607, 638, 548],
     [558, 560, 564, 566, 569, 577, 602, 609],
     [634, 0, 545, 549, 565, 571, 573, 575],
     [576, 607, 638, 548, 558, 560, 564, 566],
     [569, 577, 602, 609, 634, 0, 545, 549],
     [563, 571, 573, 575, 576, 607, 638, 548],
     [558, 560, 562, 564, 569, 577, 602, 609],
     [634, 0, 545, 549, 571, 573, 575, 576],
     [607, 638, 548, 558, 560, 565, 566, 569],
     [577, 602, 609, 634, 545, 547, 549, 556],
     [570, 571, 573, 575, 576, 588, 591, 596],
     [603, 605, 607, 620, 623, 628, 638, 548],
     [569, 577, 602, 609, 634, 0, 545, 547],
     [549, 556, 570, 571, 573, 575, 576, 603],
     [605, 607, 638, 548, 569, 577, 602, 609],
     [634, 560, 569, 577, 582, 609, 614, 560],
     [569, 577, 582, 609, 614, 0, 545, 549],
     [556, 559, 570, 571, 573, 575, 576, 603],
     [605, 607, 638, 548, 569, 577, 602, 609],
     [634, 560, 569, 577, 582, 609, 614, 560],
     [569, 577, 582, 609, 614, 0, 545, 549],
     [556, 559, 570, 571, 573, 575, 576, 603],
     [605, 607, 638, 548, 569, 577, 602, 609],
     [634, 0, 545, 549, 556, 559, 570, 571],
     [573, 575, 576, 603, 605, 607, 638, 548],
     [569, 577, 602, 609, 634, 560, 569, 577],
     [582, 609, 614, 560, 569, 577, 582, 609],
     [614, 545, 549, 556, 559, 570, 573, 576],
     [603, 605, 607, 638, 548, 569, 577, 602],
     [609, 634, 0, 545, 547, 549, 556, 570],
     [571, 573, 575, 576, 603, 605, 607, 638],
     [548, 569, 577, 602, 609, 634, 0, 545],
     [547, 549, 556, 570, 571, 573, 575, 576],
     [603, 605, 607, 638, 548, 569, 577, 602],
     [609, 634, 560, 569, 577, 582, 609, 614],
     [560, 569, 577, 582, 609, 614, 545, 548],
     [549, 556, 570, 571, 573, 576, 603, 605],
     [607, 638, 547, 550, 551, 569, 575, 602],
     [609, 634, 545, 548, 549, 556, 570, 571],
     [573, 576, 603, 605, 607, 638, 547, 550],
     [551, 569, 575, 602, 609, 634, 560, 569],
     [577, 582, 609, 614, 560, 569, 577, 582],
     [609, 614, 545, 549, 550, 556, 559, 570]]"

definition sup_trans_keys_15 :: "int list list" where
  "sup_trans_keys_15 =
    [[573, 575, 576, 603, 605, 607, 638, 548],
     [569, 577, 602, 609, 634, 560, 569, 577],
     [582, 609, 614, 560, 569, 577, 582, 609],
     [614, 0, 545, 549, 550, 556, 559, 570],
     [573, 575, 576, 603, 605, 607, 638, 548],
     [569, 577, 602, 609, 634, 560, 569, 577],
     [582, 609, 614, 560, 569, 577, 582, 609],
     [614, 545, 549, 550, 556, 559, 570, 573],
     [575, 576, 603, 605, 607, 638, 548, 569],
     [577, 602, 609, 634, 0, 545, 547, 549],
     [550, 556, 570, 571, 573, 576, 603, 605],
     [607, 638, 548, 569, 575, 602, 609, 634],
     [560, 569, 577, 582, 609, 614, 560, 569],
     [577, 582, 609, 614, 545, 547, 549, 556],
     [570, 571, 573, 575, 576, 603, 605, 607],
     [638, 548, 569, 577, 602, 609, 634, 0],
     [545, 547, 549, 556, 570, 571, 573, 575],
     [576, 594, 603, 605, 607, 626, 638, 548],
     [569, 577, 602, 609, 634, 0, 545, 547],
     [549, 556, 570, 571, 573, 575, 576, 603],
     [605, 607, 638, 548, 569, 577, 602, 609],
     [634, 0, 545, 547, 549, 551, 556, 559],
     [570, 571, 573, 575, 576, 603, 605, 608],
     [638, 548, 553, 554, 569, 577, 602, 607],
     [634, 0, 545, 547, 549, 551, 556, 559],
     [570, 571, 573, 575, 576, 603, 605, 608],
     [638, 548, 553, 554, 569, 577, 602, 607],
     [634, 0, 545, 549, 551, 571, 575, 638],
     [554, 555, 557, 558, 560, 569, 577, 582],
     [583, 602, 607, 608, 609, 614, 615, 634],
     [0, 545, 549, 551, 571, 575, 638, 554],
     [555, 557, 558, 560, 569, 577, 582, 583],
     [602, 607, 608, 609, 614, 615, 634, 0],
     [545, 547, 549, 556, 570, 571, 573, 575],
     [576, 578, 598, 603, 605, 607, 610, 630],
     [638, 548, 569, 577, 602, 609, 634, 0],
     [545, 547, 549, 556, 570, 571, 573, 575],
     [576, 603, 605, 607, 638, 548, 569, 577],
     [602, 609, 634, 0, 545, 547, 549, 556],
     [570, 571, 573, 575, 576, 585, 603, 605],
     [607, 617, 638, 548, 569, 577, 602, 609],
     [634, 0, 545, 547, 549, 556, 570, 571],
     [573, 575, 576, 580, 603, 605, 607, 612],
     [638, 548, 569, 577, 602, 609, 634, 0],
     [545, 547, 549, 556, 570, 571, 573, 575],
     [576, 603, 605, 607, 638, 548, 569, 577],
     [602, 609, 634, 0, 545, 547, 549, 551],
     [556, 559, 570, 571, 573, 575, 576, 603],
     [605, 608, 638, 548, 553, 554, 569, 577],
     [602, 607, 634, 0, 545, 547, 549, 551],
     [556, 559, 570, 571, 573, 575, 576, 603],
     [605, 608, 638, 548, 553, 554, 569, 577],
     [602, 607, 634, 0, 545, 549, 551, 571],
     [575, 638, 554, 555, 557, 558, 560, 569],
     [577, 582, 583, 602, 607, 608, 609, 614],
     [615, 634, 0, 545, 549, 551, 571, 575],
     [638, 554, 555, 557, 558, 560, 569, 577],
     [582, 583, 602, 607, 608, 609, 614, 615],
     [634, 0, 545, 547, 549, 556, 570, 571],
     [573, 575, 576, 594, 603, 605, 607, 626],
     [638, 548, 569, 577, 602, 609, 634, 0],
     [545, 547, 549, 556, 570, 571, 573, 575],
     [576, 577, 603, 605, 607, 609, 638, 548],
     [569, 578, 602, 610, 634, 0, 545, 547],
     [549, 556, 570, 571, 573, 575, 576, 590],
     [603, 605, 607, 622, 638, 548, 569, 577],
     [602, 609, 634, 0, 545, 547, 549, 556],
     [570, 571, 573, 575, 576, 595, 603, 605],
     [607, 627, 638, 548, 569, 577, 602, 609],
     [634, 0, 545, 547, 549, 556, 570, 571],
     [573, 575, 576, 592, 603, 605, 607, 624],
     [638, 548, 569, 577, 602, 609, 634, 0],
     [545, 547, 549, 556, 570, 571, 573, 575],
     [576, 591, 603, 605, 607, 623, 638, 548],
     [569, 577, 602, 609, 634, 0, 545, 547],
     [549, 556, 570, 571, 573, 575, 576, 594],
     [603, 605, 607, 626, 638, 548, 569, 577],
     [602, 609, 634, 0, 545, 547, 549, 556],
     [570, 571, 573, 575, 576, 596, 603, 605],
     [607, 628, 638, 548, 569, 577, 602, 609],
     [634, 0, 545, 547, 549, 556, 570, 571],
     [573, 575, 576, 603, 605, 607, 638, 548],
     [569, 577, 602, 609, 634, 0, 545, 547],
     [549, 551, 556, 559, 570, 571, 573, 575],
     [576, 595, 596, 597, 599, 603, 605, 608],
     [627, 628, 629, 631, 638, 548, 553, 554],
     [569, 577, 602, 607, 634, 0, 545, 547],
     [549, 551, 556, 559, 570, 571, 573, 575],
     [576, 603, 605, 608, 638, 548, 553, 554],
     [569, 577, 602, 607, 634, 0, 545, 549],
     [551, 571, 575, 638, 554, 555, 557, 558],
     [560, 569, 577, 582, 583, 602, 607, 608],
     [609, 614, 615, 634, 0, 545, 549, 551],
     [571, 575, 638, 554, 555, 557, 558, 560],
     [569, 577, 582, 583, 602, 607, 608, 609],
     [614, 615, 634, 0, 545, 547, 549, 551],
     [556, 559, 570, 571, 573, 575, 576, 579],
     [603, 605, 608, 611, 638, 548, 553, 554],
     [569, 577, 602, 607, 634, 0, 545, 547],
     [549, 551, 556, 559, 570, 571, 573, 575],
     [576, 596, 603, 605, 608, 628, 638, 548],
     [553, 554, 569, 577, 602, 607, 634, 0],
     [545, 547, 549, 551, 556, 559, 570, 571],
     [573, 575, 576, 592, 603, 605, 608, 624],
     [638, 548, 553, 554, 569, 577, 602, 607],
     [634, 0, 545, 547, 549, 551, 556, 559],
     [570, 571, 573, 575, 576, 603, 605, 608],
     [638, 548, 553, 554, 569, 577, 602, 607],
     [634, 0, 545, 547, 549, 551, 556, 559],
     [570, 571, 573, 575, 576, 579, 588, 603],
     [605, 608, 611, 620, 638, 548, 553, 554],
     [569, 577, 602, 607, 634, 0, 545, 547],
     [549, 551, 556, 559, 570, 571, 573, 575],
     [576, 592, 603, 605, 608, 624, 638, 548],
     [553, 554, 569, 577, 602, 607, 634, 0],
     [545, 547, 549, 551, 556, 559, 570, 571],
     [573, 575, 576, 603, 605, 608, 638, 548],
     [553, 554, 569, 577, 602, 607, 634, 0],
     [545, 547, 549, 551, 556, 559, 570, 571],
     [573, 575, 576, 595, 603, 605, 608, 627],
     [638, 548, 553, 554, 569, 577, 602, 607],
     [634, 0, 545, 547, 549, 551, 556, 559],
     [570, 571, 573, 575, 576, 603, 605, 608],
     [638, 548, 553, 554, 569, 577, 602, 607],
     [634, 0, 545, 547, 549, 551, 556, 559],
     [570, 571, 573, 575, 576, 580, 603, 605],
     [608, 612, 638, 548, 553, 554, 569, 577],
     [602, 607, 634, 0, 545, 547, 549, 551],
     [556, 559, 570, 571, 573, 575, 576, 592],
     [603, 605, 608, 624, 638, 548, 553, 554],
     [569, 577, 602, 607, 634, 0, 545, 547],
     [549, 551, 556, 559, 570, 571, 573, 575],
     [576, 603, 605, 608, 638, 548, 553, 554],
     [569, 577, 602, 607, 634, 0, 545, 547],
     [549, 551, 556, 559, 570, 571, 573, 575],
     [576, 595, 603, 605, 608, 627, 638, 548],
     [553, 554, 569, 577, 602, 607, 634, 0],
     [545, 547, 549, 551, 556, 559, 570, 571],
     [573, 575, 576, 595, 603, 605, 608, 627],
     [638, 548, 553, 554, 569, 577, 602, 607],
     [634, 0, 545, 547, 549, 551, 556, 559],
     [570, 571, 573, 575, 576, 603, 605, 608],
     [638, 548, 553, 554, 569, 577, 602, 607],
     [634, 545, 549, 560, 561, 562, 570, 571],
     [573, 575, 576, 607, 638, 547, 559, 563],
     [569, 577, 602, 609, 634, 545, 549, 557],
     [558, 570, 571, 573, 575, 576, 607, 638],
     [547, 559, 560, 569, 577, 602, 609, 634],
     [545, 549, 560, 561, 562, 570, 571, 573],
     [575, 576, 607, 638, 547, 559, 563, 569]]"

definition sup_trans_keys_16 :: "int list list" where
  "sup_trans_keys_16 =
    [[577, 602, 609, 634, 545, 549, 557, 558],
     [570, 571, 573, 575, 576, 607, 638, 547],
     [559, 560, 569, 577, 602, 609, 634, 545],
     [549, 560, 561, 562, 570, 571, 573, 575],
     [576, 607, 638, 547, 559, 563, 569, 577],
     [602, 609, 634, 0, 545, 549, 557, 558],
     [570, 571, 573, 575, 576, 607, 638, 547],
     [559, 560, 569, 577, 602, 609, 634, 0],
     [545, 549, 557, 558, 570, 571, 573, 575],
     [576, 607, 638, 547, 559, 560, 569, 577],
     [602, 609, 634, 0, 545, 549, 557, 558],
     [570, 571, 573, 575, 576, 607, 638, 547],
     [559, 560, 569, 577, 602, 609, 634, 0],
     [545, 549, 557, 558, 565, 570, 571, 573],
     [575, 576, 607, 638, 547, 559, 560, 564],
     [566, 569, 577, 602, 609, 634, 0, 545],
     [549, 557, 558, 570, 571, 573, 575, 576],
     [607, 638, 547, 559, 560, 565, 566, 569],
     [577, 602, 609, 634, 545, 549, 557, 558],
     [570, 571, 573, 575, 576, 607, 638, 547],
     [559, 560, 569, 577, 602, 609, 634, 545],
     [549, 557, 558, 570, 571, 573, 575, 576],
     [607, 638, 547, 559, 560, 569, 577, 602],
     [609, 634, 545, 549, 557, 558, 565, 570],
     [571, 573, 575, 576, 607, 638, 547, 559],
     [560, 564, 566, 569, 577, 602, 609, 634],
     [545, 549, 557, 558, 570, 571, 573, 575],
     [576, 607, 638, 547, 559, 560, 565, 566],
     [569, 577, 602, 609, 634, 545, 549, 557],
     [558, 570, 571, 573, 575, 576, 607, 638],
     [547, 559, 560, 569, 577, 602, 609, 634],
     [545, 549, 557, 558, 570, 571, 573, 575],
     [576, 607, 638, 547, 559, 560, 569, 577],
     [602, 609, 634, 545, 549, 557, 558, 565],
     [570, 571, 573, 575, 576, 607, 638, 547],
     [559, 560, 564, 566, 569, 577, 602, 609],
     [634, 545, 549, 557, 558, 570, 571, 573],
     [575, 576, 607, 638, 547, 559, 560, 565],
     [566, 569, 577, 602, 609, 634, 545, 549],
     [557, 558, 570, 571, 573, 575, 576, 607],
     [638, 547, 559, 560, 569, 577, 602, 609],
     [634, 545, 549, 557, 558, 570, 571, 573],
     [575, 576, 607, 638, 547, 559, 560, 569],
     [577, 602, 609, 634, 545, 549, 557, 558],
     [565, 570, 571, 573, 575, 576, 607, 638],
     [547, 559, 560, 564, 566, 569, 577, 602],
     [609, 634, 545, 549, 557, 558, 570, 571],
     [573, 575, 576, 607, 638, 547, 559, 560],
     [565, 566, 569, 577, 602, 609, 634, 555],
     [570, 557, 558, 560, 569, 577, 602, 609],
     [634, 555, 570, 581, 613, 557, 558, 560],
     [569, 577, 602, 609, 634, 555, 570, 588],
     [620, 557, 558, 560, 569, 577, 602, 609],
     [634, 555, 570, 557, 558, 560, 569, 577],
     [602, 609, 634, 547, 554, 555, 552, 553],
     [557, 558, 560, 569, 577, 582, 609, 614],
     [0, 547, 571, 552, 554, 557, 558, 560],
     [569, 577, 582, 609, 614, 557, 592, 624],
     [560, 569, 577, 602, 609, 634, 0, 557],
     [571, 573, 560, 569, 577, 602, 609, 634],
     [545, 549, 605, 607, 638, 548, 555, 557],
     [570, 577, 603, 609, 634, 0, 545, 549],
     [571, 605, 607, 638, 548, 555, 557, 570],
     [577, 603, 609, 634, 560, 569, 577, 582],
     [609, 614, 560, 569, 577, 582, 609, 614],
     [0, 557, 571, 573, 584, 616, 560, 569],
     [577, 602, 609, 634, 0, 557, 571, 573],
     [591, 623, 560, 569, 577, 602, 609, 634],
     [0, 557, 571, 573, 590, 622, 560, 569],
     [577, 602, 609, 634, 0, 557, 571, 573],
     [581, 613, 560, 569, 577, 602, 609, 634],
     [0, 557, 571, 573, 560, 569, 577, 602],
     [609, 634, 0, 557, 571, 573, 579, 611],
     [560, 569, 577, 602, 609, 634, 0, 557],
     [571, 573, 591, 623, 560, 569, 577, 602],
     [609, 634, 0, 557, 571, 573, 590, 622],
     [560, 569, 577, 602, 609, 634, 0, 557],
     [571, 573, 596, 628, 560, 569, 577, 602],
     [609, 634, 0, 557, 571, 573, 581, 613],
     [560, 569, 577, 602, 609, 634, 0, 557],
     [571, 573, 600, 632, 560, 569, 577, 602],
     [609, 634, 0, 557, 571, 573, 596, 628],
     [560, 569, 577, 602, 609, 634, 0, 557],
     [571, 573, 560, 569, 577, 602, 609, 634],
     [545, 549, 555, 570, 603, 605, 607, 638],
     [548, 554, 557, 559, 560, 569, 577, 602],
     [609, 634, 0, 545, 549, 559, 570, 571],
     [605, 607, 638, 548, 551, 552, 553, 554],
     [555, 557, 558, 560, 569, 577, 603, 609],
     [634, 0, 545, 549, 559, 570, 571, 605],
     [607, 638, 548, 551, 552, 553, 554, 555],
     [557, 569, 577, 603, 609, 634, 0, 545],
     [549, 557, 558, 559, 570, 571, 603, 605],
     [607, 638, 548, 555, 560, 569, 577, 602],
     [609, 634, 0, 545, 549, 557, 570, 571],
     [603, 605, 607, 638, 548, 555, 558, 559],
     [560, 569, 577, 602, 609, 634, 0, 545],
     [549, 570, 571, 603, 605, 607, 638, 548],
     [555, 557, 559, 560, 569, 577, 602, 609],
     [634, 0, 545, 549, 557, 558, 559, 570],
     [571, 603, 605, 607, 638, 548, 555, 560],
     [569, 577, 602, 609, 634, 0, 545, 549],
     [557, 570, 571, 603, 605, 607, 638, 548],
     [555, 558, 559, 560, 569, 577, 602, 609],
     [634, 0, 545, 549, 570, 571, 603, 605],
     [607, 638, 548, 555, 557, 559, 560, 569],
     [577, 602, 609, 634, 547, 554, 552, 553],
     [557, 558, 560, 569, 577, 582, 609, 614],
     [552, 553, 557, 558, 560, 569, 0, 571],
     [552, 553, 557, 558, 560, 569, 1033, 1037],
     [1056, 1057, 1061, 1063, 1066, 1067, 1082, 1084],
     [1150, 1069, 1070, 1072, 1081, 1089, 1114, 1119],
     [1120, 1121, 1146, 0, 1033, 1037, 1056, 1057],
     [1059, 1061, 1071, 1082, 1083, 1085, 1088, 1115],
     [1119, 1150, 1060, 1067, 1069, 1081, 1089, 1114],
     [1121, 1146, 0, 1033, 1037, 1056, 1057, 1059],
     [1061, 1082, 1083, 1085, 1088, 1119, 1150, 1060],
     [1067, 1069, 1081, 1089, 1114, 1121, 1146, 1057],
     [1061, 1082, 1085, 1088, 1119, 1150, 1059, 1067],
     [1069, 1081, 1089, 1114, 1121, 1146, 1072, 1081],
     [1089, 1094, 1121, 1126, 1072, 1081, 1089, 1094],
     [1121, 1126, 1057, 1061, 1085, 1088, 1119, 1150],
     [1060, 1067, 1069, 1070, 1072, 1081, 1089, 1114],
     [1121, 1146, 1072, 1081, 1089, 1094, 1121, 1126],
     [1072, 1081, 1089, 1094, 1121, 1126, 1072, 1073],
     [1074, 1115, 1075, 1081, 1089, 1114, 1121, 1146],
     [1069, 1070, 1119, 1072, 1081, 1089, 1114, 1121],
     [1146, 1069, 1119, 1072, 1081, 1089, 1114, 1121],
     [1146, 1069, 1070, 1119, 1072, 1081, 1089, 1114],
     [1121, 1146, 1072, 1081, 1089, 1114, 1121, 1146],
     [0, 1033, 1037, 1056, 1069, 1070, 1082, 1083],
     [1119, 1072, 1081, 1089, 1114, 1121, 1146, 1069],
     [1119, 1072, 1081, 1089, 1114, 1121, 1146, 0],
     [1033, 1037, 1056, 1082, 1083, 1072, 1081, 1089],
     [1114, 1121, 1146, 1072, 1078, 1073, 1077, 1079],
     [1081, 1072, 1073, 1081, 1072, 1073, 1081, 1073],
     [1081, 0, 1033, 1037, 1056, 1083, 0, 1033],
     [1037, 1056, 1083, 1072, 1081, 0, 1033, 1037],
     [1056, 1083, 1072, 1081, 0, 1033, 1037, 1056],
     [1083, 1072, 1081, 0, 1033, 1037, 1056, 1083],
     [1072, 1081, 0, 1033, 1037, 1056, 1077, 1083],
     [1072, 1076, 1078, 1081, 0, 1033, 1037, 1056],
     [1077, 1083, 1072, 1076, 1078, 1081, 0, 1033],
     [1037, 1056, 1075, 1083, 1072, 1074, 1076, 1081],
     [0, 1033, 1037, 1056, 1083, 1072, 1077, 1072],
     [1073, 1074, 1075, 1081, 1089, 1114, 1121, 1146],
     [1069, 1070, 1119, 1072, 1081, 1089, 1114, 1121],
     [1146, 1072, 1073, 1074, 1075, 1081, 1089, 1114],
     [1121, 1146, 1069, 1070, 1119, 1072, 1081, 1089],
     [1114, 1121, 1146, 1072, 1073, 1074, 1075, 1081]]"

definition sup_trans_keys_17 :: "int list list" where
  "sup_trans_keys_17 =
    [[1089, 1114, 1121, 1146, 0, 1033, 1037, 1056],
     [1069, 1070, 1082, 1083, 1119, 1072, 1081, 1089],
     [1114, 1121, 1146, 0, 1033, 1037, 1056, 1069],
     [1070, 1082, 1083, 1119, 1072, 1081, 1089, 1114],
     [1121, 1146, 0, 1033, 1037, 1056, 1069, 1070],
     [1082, 1083, 1119, 1072, 1081, 1089, 1114, 1121],
     [1146, 0, 1033, 1037, 1056, 1069, 1070, 1077],
     [1082, 1083, 1119, 1072, 1076, 1078, 1081, 1089],
     [1114, 1121, 1146, 0, 1033, 1037, 1056, 1069],
     [1070, 1082, 1083, 1119, 1072, 1077, 1078, 1081],
     [1089, 1114, 1121, 1146, 1069, 1070, 1119, 1072],
     [1081, 1089, 1114, 1121, 1146, 1069, 1070, 1119],
     [1072, 1081, 1089, 1114, 1121, 1146, 1069, 1070],
     [1077, 1119, 1072, 1076, 1078, 1081, 1089, 1114],
     [1121, 1146, 1069, 1070, 1119, 1072, 1077, 1078],
     [1081, 1089, 1114, 1121, 1146, 1069, 1070, 1119],
     [1072, 1081, 1089, 1114, 1121, 1146, 1069, 1070],
     [1119, 1072, 1081, 1089, 1114, 1121, 1146, 1069],
     [1070, 1077, 1119, 1072, 1076, 1078, 1081, 1089],
     [1114, 1121, 1146, 1069, 1070, 1119, 1072, 1077],
     [1078, 1081, 1089, 1114, 1121, 1146, 1069, 1070],
     [1119, 1072, 1081, 1089, 1114, 1121, 1146, 1069],
     [1070, 1119, 1072, 1081, 1089, 1114, 1121, 1146],
     [1069, 1070, 1077, 1119, 1072, 1076, 1078, 1081],
     [1089, 1114, 1121, 1146, 1069, 1070, 1119, 1072],
     [1077, 1078, 1081, 1089, 1114, 1121, 1146, 1082],
     [1072, 1081, 1089, 1094, 1121, 1126, 1082, 1072],
     [1081, 1089, 1094, 1121, 1126, 1082, 1072, 1081],
     [1089, 1094, 1121, 1126, 1082, 1072, 1081, 1089],
     [1094, 1121, 1126, 1082, 1082, 1072, 1081, 1089],
     [1094, 1121, 1126, 1082, 1072, 1081, 1089, 1094],
     [1121, 1126, 1082, 1072, 1081, 1089, 1094, 1121],
     [1126, 1082, 1072, 1081, 1089, 1094, 1121, 1126],
     [1082, 1082, 1072, 1081, 1089, 1094, 1121, 1126],
     [1082, 1072, 1081, 1089, 1094, 1121, 1126, 1082],
     [1072, 1081, 1089, 1094, 1121, 1126, 1082, 1072],
     [1081, 1089, 1094, 1121, 1126, 1082, 1082, 1072],
     [1081, 1089, 1094, 1121, 1126, 1082, 1072, 1081],
     [1089, 1094, 1121, 1126, 1082, 1072, 1081, 1089],
     [1094, 1121, 1126, 1082, 1072, 1081, 1089, 1094],
     [1121, 1126, 1082, 1082, 1072, 1081, 1089, 1094],
     [1121, 1126, 1082, 1072, 1081, 1089, 1094, 1121],
     [1126, 1082, 1072, 1081, 1089, 1094, 1121, 1126],
     [1082, 1072, 1081, 1089, 1094, 1121, 1126, 1082],
     [1082, 1072, 1081, 1089, 1094, 1121, 1126, 1082],
     [1072, 1081, 1089, 1094, 1121, 1126, 1082, 1072],
     [1081, 1089, 1094, 1121, 1126, 1082, 1072, 1081],
     [1089, 1094, 1121, 1126, 1082, 1072, 1073, 1074],
     [1082, 1075, 1081, 1089, 1094, 1121, 1126, 1070],
     [1082, 1072, 1081, 1089, 1094, 1121, 1126, 1072],
     [1073, 1074, 1075, 1081, 1070, 1072, 1073, 1074],
     [1075, 1081, 1070, 1072, 1073, 1074, 1075, 1081],
     [1117, 0, 1033, 1037, 1056, 1082, 1083, 1117],
     [1072, 1081, 1117, 1072, 1081, 1077, 1117, 1072],
     [1076, 1078, 1081, 1117, 1072, 1077, 1070, 1072],
     [1081, 1070, 1072, 1081, 1070, 1077, 1072, 1076],
     [1078, 1081, 1070, 1072, 1077, 1070, 1072, 1081],
     [1070, 1072, 1081, 1070, 1077, 1072, 1076, 1078],
     [1081, 1070, 1072, 1077, 1082, 1072, 1081, 1089],
     [1094, 1121, 1126, 1082, 1072, 1081, 1089, 1094],
     [1121, 1126, 1082, 1082, 1072, 1081, 1089, 1094],
     [1121, 1126, 1117, 1072, 1081, 1089, 1094, 1121],
     [1126, 1117, 1072, 1081, 1089, 1094, 1121, 1126],
     [1117, 1072, 1081, 1089, 1094, 1121, 1126, 1070],
     [1082, 1072, 1081, 1089, 1094, 1121, 1126, 1070],
     [1082, 1072, 1081, 1089, 1094, 1121, 1126, 1070],
     [1082, 1072, 1081, 1089, 1094, 1121, 1126, 1070],
     [1077, 1082, 1072, 1076, 1078, 1081, 1089, 1094],
     [1121, 1126, 1070, 1082, 1072, 1077, 1078, 1081],
     [1089, 1094, 1121, 1126, 1070, 1082, 1072, 1081],
     [1089, 1094, 1121, 1126, 1070, 1082, 1072, 1081],
     [1089, 1094, 1121, 1126, 1117, 1072, 1081, 1089],
     [1094, 1121, 1126, 1082, 1072, 1081, 1089, 1094],
     [1121, 1126, 1072, 1073, 1074, 1117, 1075, 1081],
     [1089, 1094, 1121, 1126, 1070, 1082, 1117, 1072],
     [1081, 1089, 1094, 1121, 1126, 1082, 1117, 1072],
     [1081, 1089, 1094, 1121, 1126, 1082, 1117, 1072],
     [1081, 1089, 1094, 1121, 1126, 1082, 1117, 1072],
     [1081, 1089, 1094, 1121, 1126, 1070, 1082, 1117],
     [1072, 1081, 1089, 1094, 1121, 1126, 1070, 1082],
     [1117, 1072, 1081, 1089, 1094, 1121, 1126, 1070],
     [1082, 1117, 1072, 1081, 1089, 1094, 1121, 1126],
     [1070, 1077, 1082, 1117, 1072, 1076, 1078, 1081],
     [1089, 1094, 1121, 1126, 1070, 1082, 1117, 1072],
     [1077, 1078, 1081, 1089, 1094, 1121, 1126, 1070],
     [1082, 1117, 1072, 1081, 1089, 1094, 1121, 1126],
     [1070, 1082, 1117, 1072, 1081, 1089, 1094, 1121],
     [1126, 1082, 1117, 1072, 1081, 1089, 1094, 1121],
     [1126, 1072, 1073, 1074, 1117, 1075, 1081, 1089],
     [1094, 1121, 1126, 1070, 1082, 1117, 1072, 1081],
     [1089, 1094, 1121, 1126, 1082, 1117, 1072, 1081],
     [1089, 1094, 1121, 1126, 1082, 1117, 1072, 1081],
     [1089, 1094, 1121, 1126, 1082, 1117, 1072, 1073],
     [1074, 1075, 1081, 1089, 1094, 1121, 1126, 1070],
     [1082, 1117, 1072, 1081, 1089, 1094, 1121, 1126],
     [1070, 1082, 1117, 1072, 1081, 1089, 1094, 1121],
     [1126, 1070, 1082, 1117, 1072, 1081, 1089, 1094],
     [1121, 1126, 1070, 1077, 1082, 1117, 1072, 1076],
     [1078, 1081, 1089, 1094, 1121, 1126, 1070, 1082],
     [1117, 1072, 1077, 1078, 1081, 1089, 1094, 1121],
     [1126, 1070, 1082, 1117, 1072, 1081, 1089, 1094],
     [1121, 1126, 1070, 1082, 1117, 1072, 1081, 1089],
     [1094, 1121, 1126, 1082, 1117, 1072, 1081, 1089],
     [1094, 1121, 1126, 1072, 1073, 1074, 1117, 1075],
     [1081, 1089, 1094, 1121, 1126, 1070, 1082, 1117],
     [1072, 1081, 1089, 1094, 1121, 1126, 1082, 1117],
     [1072, 1081, 1089, 1094, 1121, 1126, 1082, 1117],
     [1072, 1081, 1089, 1094, 1121, 1126, 1082, 1117],
     [1072, 1073, 1074, 1075, 1081, 1089, 1094, 1121],
     [1126, 1070, 1082, 1117, 1072, 1081, 1089, 1094],
     [1121, 1126, 1070, 1082, 1117, 1072, 1081, 1089],
     [1094, 1121, 1126, 1070, 1082, 1117, 1072, 1081],
     [1089, 1094, 1121, 1126, 1070, 1077, 1082, 1117],
     [1072, 1076, 1078, 1081, 1089, 1094, 1121, 1126],
     [1070, 1082, 1117, 1072, 1077, 1078, 1081, 1089],
     [1094, 1121, 1126, 1070, 1082, 1117, 1072, 1081],
     [1089, 1094, 1121, 1126, 1070, 1082, 1117, 1072],
     [1081, 1089, 1094, 1121, 1126, 1082, 1117, 1072],
     [1081, 1089, 1094, 1121, 1126, 1072, 1073, 1074],
     [1117, 1075, 1081, 1089, 1094, 1121, 1126, 1070],
     [1082, 1117, 1072, 1081, 1089, 1094, 1121, 1126],
     [1082, 1117, 1072, 1081, 1089, 1094, 1121, 1126],
     [1082, 1117, 1072, 1081, 1089, 1094, 1121, 1126],
     [1082, 1117, 1072, 1073, 1074, 1075, 1081, 1089],
     [1094, 1121, 1126, 1070, 1082, 1117, 1072, 1081],
     [1089, 1094, 1121, 1126, 1070, 1082, 1117, 1072],
     [1081, 1089, 1094, 1121, 1126, 1070, 1082, 1117],
     [1072, 1081, 1089, 1094, 1121, 1126, 1070, 1077],
     [1082, 1117, 1072, 1076, 1078, 1081, 1089, 1094],
     [1121, 1126, 1070, 1082, 1117, 1072, 1077, 1078],
     [1081, 1089, 1094, 1121, 1126, 1070, 1082, 1117],
     [1072, 1081, 1089, 1094, 1121, 1126, 1070, 1082],
     [1117, 1072, 1081, 1089, 1094, 1121, 1126, 1082],
     [1117, 1072, 1081, 1089, 1094, 1121, 1126, 1072],
     [1073, 1074, 1117, 1075, 1081, 1089, 1094, 1121],
     [1126, 1070, 1082, 1117, 1072, 1081, 1089, 1094],
     [1121, 1126, 1082, 1117, 1072, 1081, 1089, 1094],
     [1121, 1126, 1082, 1117, 1072, 1081, 1089, 1094],
     [1121, 1126, 1082, 1117, 1072, 1073, 1074, 1075],
     [1081, 1089, 1094, 1121, 1126, 1070, 1082, 1117],
     [1072, 1081, 1089, 1094, 1121, 1126, 1070, 1082],
     [1117, 1072, 1081, 1089, 1094, 1121, 1126, 1070],
     [1082, 1117, 1072, 1081, 1089, 1094, 1121, 1126],
     [1070, 1077, 1082, 1117, 1072, 1076, 1078, 1081],
     [1089, 1094, 1121, 1126, 1070, 1082, 1117, 1072],
     [1077, 1078, 1081, 1089, 1094, 1121, 1126, 1070],
     [1082, 1117, 1072, 1081, 1089, 1094, 1121, 1126],
     [1070, 1082, 1117, 1072, 1081, 1089, 1094, 1121],
     [1126, 1082, 1117, 1072, 1081, 1089, 1094, 1121],
     [1126, 1082, 1072, 1073, 1074, 1117, 1075, 1081]]"

definition sup_trans_keys_18 :: "int list list" where
  "sup_trans_keys_18 =
    [[1089, 1094, 1121, 1126, 1070, 1082, 1117, 1072],
     [1081, 1089, 1094, 1121, 1126, 1082, 1117, 1072],
     [1081, 1089, 1094, 1121, 1126, 1082, 1117, 1072],
     [1081, 1089, 1094, 1121, 1126, 1082, 1117, 1072],
     [1073, 1074, 1075, 1081, 1089, 1094, 1121, 1126],
     [1070, 1082, 1117, 1072, 1081, 1089, 1094, 1121],
     [1126, 1070, 1082, 1117, 1072, 1081, 1089, 1094],
     [1121, 1126, 1070, 1082, 1117, 1072, 1081, 1089],
     [1094, 1121, 1126, 1070, 1077, 1082, 1117, 1072],
     [1076, 1078, 1081, 1089, 1094, 1121, 1126, 1070],
     [1082, 1117, 1072, 1077, 1078, 1081, 1089, 1094],
     [1121, 1126, 1070, 1082, 1117, 1072, 1081, 1089],
     [1094, 1121, 1126, 1070, 1082, 1117, 1072, 1081],
     [1089, 1094, 1121, 1126, 1082, 1117, 1072, 1081],
     [1089, 1094, 1121, 1126, 1072, 1081, 1089, 1094],
     [1121, 1126, 1072, 1081, 1089, 1094, 1121, 1126],
     [0, 1033, 1037, 1056, 1057, 1061, 1071, 1082],
     [1083, 1085, 1088, 1119, 1150, 1060, 1067, 1069],
     [1081, 1089, 1114, 1121, 1146, 1072, 1081, 1089],
     [1094, 1121, 1126, 1072, 1081, 1089, 1094, 1121],
     [1126, 0, 1033, 1037, 1056, 1057, 1061, 1083],
     [1085, 1119, 1150, 1060, 1067, 1069, 1082, 1088],
     [1114, 1121, 1146, 1072, 1081, 1089, 1094, 1121],
     [1126, 1072, 1081, 1089, 1094, 1121, 1126, 0],
     [1033, 1037, 1056, 1057, 1061, 1083, 1085, 1115],
     [1119, 1150, 1060, 1067, 1069, 1082, 1088, 1114],
     [1121, 1146, 0, 1033, 1037, 1056, 1057, 1059],
     [1061, 1071, 1082, 1083, 1085, 1088, 1119, 1150],
     [1060, 1067, 1069, 1081, 1089, 1114, 1121, 1146],
     [0, 1033, 1037, 1056, 1057, 1059, 1061, 1082],
     [1083, 1085, 1088, 1115, 1119, 1150, 1060, 1067],
     [1069, 1081, 1089, 1114, 1121, 1146, 0, 1033],
     [1037, 1056, 1057, 1059, 1061, 1082, 1083, 1085],
     [1088, 1119, 1150, 1060, 1067, 1069, 1081, 1089],
     [1114, 1121, 1146, 1057, 1061, 1082, 1085, 1088],
     [1119, 1150, 1059, 1067, 1069, 1081, 1089, 1114],
     [1121, 1146, 1072, 1081, 1089, 1094, 1121, 1126],
     [1072, 1081, 1089, 1094, 1121, 1126, 1057, 1061],
     [1085, 1088, 1119, 1150, 1060, 1067, 1069, 1070],
     [1072, 1081, 1089, 1114, 1121, 1146, 1072, 1081],
     [1089, 1094, 1121, 1126, 1072, 1081, 1089, 1094],
     [1121, 1126, 1072, 1073, 1074, 1115, 1075, 1081],
     [1089, 1114, 1121, 1146, 1069, 1070, 1119, 1072],
     [1081, 1089, 1114, 1121, 1146, 1069, 1119, 1072],
     [1081, 1089, 1114, 1121, 1146, 1069, 1070, 1119],
     [1072, 1081, 1089, 1114, 1121, 1146, 1072, 1081],
     [1089, 1114, 1121, 1146, 0, 1033, 1037, 1056],
     [1069, 1070, 1071, 1082, 1083, 1119, 1072, 1081],
     [1089, 1114, 1121, 1146, 1069, 1119, 1072, 1081],
     [1089, 1114, 1121, 1146, 0, 1033, 1037, 1056],
     [1071, 1082, 1083, 1072, 1081, 1089, 1114, 1121],
     [1146, 1072, 1078, 1073, 1077, 1079, 1081, 1072],
     [1073, 1081, 1072, 1073, 1081, 1073, 1081, 0],
     [1033, 1037, 1056, 1071, 1083, 0, 1033, 1037],
     [1056, 1071, 1083, 1072, 1081, 0, 1033, 1037],
     [1056, 1071, 1083, 1072, 1081, 0, 1033, 1037],
     [1056, 1071, 1083, 1072, 1081, 0, 1033, 1037],
     [1056, 1071, 1083, 1072, 1081, 0, 1033, 1037],
     [1056, 1071, 1077, 1083, 1072, 1076, 1078, 1081],
     [0, 1033, 1037, 1056, 1071, 1077, 1083, 1072],
     [1076, 1078, 1081, 0, 1033, 1037, 1056, 1071],
     [1075, 1083, 1072, 1074, 1076, 1081, 0, 1033],
     [1037, 1056, 1071, 1083, 1072, 1077, 1072, 1073],
     [1074, 1075, 1081, 1089, 1114, 1121, 1146, 1069],
     [1070, 1119, 1072, 1081, 1089, 1114, 1121, 1146],
     [1072, 1073, 1074, 1075, 1081, 1089, 1114, 1121],
     [1146, 1069, 1070, 1119, 1072, 1081, 1089, 1114],
     [1121, 1146, 1072, 1073, 1074, 1075, 1081, 1089],
     [1114, 1121, 1146, 0, 1033, 1037, 1056, 1069],
     [1070, 1071, 1082, 1083, 1119, 1072, 1081, 1089],
     [1114, 1121, 1146, 0, 1033, 1037, 1056, 1069],
     [1070, 1071, 1082, 1083, 1119, 1072, 1081, 1089],
     [1114, 1121, 1146, 0, 1033, 1037, 1056, 1069],
     [1070, 1071, 1082, 1083, 1119, 1072, 1081, 1089],
     [1114, 1121, 1146, 0, 1033, 1037, 1056, 1069],
     [1070, 1071, 1077, 1082, 1083, 1119, 1072, 1076],
     [1078, 1081, 1089, 1114, 1121, 1146, 0, 1033],
     [1037, 1056, 1069, 1070, 1071, 1082, 1083, 1119],
     [1072, 1077, 1078, 1081, 1089, 1114, 1121, 1146],
     [1069, 1070, 1119, 1072, 1081, 1089, 1114, 1121],
     [1146, 1069, 1070, 1119, 1072, 1081, 1089, 1114],
     [1121, 1146, 1069, 1070, 1077, 1119, 1072, 1076],
     [1078, 1081, 1089, 1114, 1121, 1146, 1069, 1070],
     [1119, 1072, 1077, 1078, 1081, 1089, 1114, 1121],
     [1146, 1069, 1070, 1119, 1072, 1081, 1089, 1114],
     [1121, 1146, 1069, 1070, 1119, 1072, 1081, 1089],
     [1114, 1121, 1146, 1069, 1070, 1077, 1119, 1072],
     [1076, 1078, 1081, 1089, 1114, 1121, 1146, 1069],
     [1070, 1119, 1072, 1077, 1078, 1081, 1089, 1114],
     [1121, 1146, 1069, 1070, 1119, 1072, 1081, 1089],
     [1114, 1121, 1146, 1069, 1070, 1119, 1072, 1081],
     [1089, 1114, 1121, 1146, 1069, 1070, 1077, 1119],
     [1072, 1076, 1078, 1081, 1089, 1114, 1121, 1146],
     [1069, 1070, 1119, 1072, 1077, 1078, 1081, 1089],
     [1114, 1121, 1146, 1082, 1072, 1081, 1089, 1094],
     [1121, 1126, 1082, 1072, 1081, 1089, 1094, 1121],
     [1126, 1082, 1072, 1081, 1089, 1094, 1121, 1126],
     [1082, 1072, 1081, 1089, 1094, 1121, 1126, 1082],
     [1082, 1072, 1081, 1089, 1094, 1121, 1126, 1082],
     [1072, 1081, 1089, 1094, 1121, 1126, 1082, 1072],
     [1081, 1089, 1094, 1121, 1126, 1082, 1072, 1081],
     [1089, 1094, 1121, 1126, 1082, 1082, 1072, 1081],
     [1089, 1094, 1121, 1126, 1082, 1072, 1081, 1089],
     [1094, 1121, 1126, 1082, 1072, 1081, 1089, 1094],
     [1121, 1126, 1082, 1072, 1081, 1089, 1094, 1121],
     [1126, 1082, 1082, 1072, 1081, 1089, 1094, 1121],
     [1126, 1082, 1072, 1081, 1089, 1094, 1121, 1126],
     [1082, 1072, 1081, 1089, 1094, 1121, 1126, 1082],
     [1072, 1081, 1089, 1094, 1121, 1126, 1082, 1082],
     [1072, 1081, 1089, 1094, 1121, 1126, 1082, 1072],
     [1081, 1089, 1094, 1121, 1126, 1082, 1072, 1081],
     [1089, 1094, 1121, 1126, 1082, 1072, 1081, 1089],
     [1094, 1121, 1126, 1082, 1082, 1072, 1081, 1089],
     [1094, 1121, 1126, 1082, 1072, 1081, 1089, 1094],
     [1121, 1126, 1082, 1072, 1081, 1089, 1094, 1121],
     [1126, 1082, 1072, 1081, 1089, 1094, 1121, 1126],
     [1082, 1072, 1073, 1074, 1082, 1075, 1081, 1089],
     [1094, 1121, 1126, 1070, 1082, 1072, 1081, 1089],
     [1094, 1121, 1126, 1072, 1073, 1074, 1075, 1081],
     [1070, 1072, 1073, 1074, 1075, 1081, 1070, 1072],
     [1073, 1074, 1075, 1081, 1117, 0, 1033, 1037],
     [1056, 1071, 1082, 1083, 1117, 1072, 1081, 1117],
     [1072, 1081, 1077, 1117, 1072, 1076, 1078, 1081],
     [1117, 1072, 1077, 1070, 1072, 1081, 1070, 1072],
     [1081, 1070, 1077, 1072, 1076, 1078, 1081, 1070],
     [1072, 1077, 1070, 1072, 1081, 1070, 1072, 1081],
     [1070, 1077, 1072, 1076, 1078, 1081, 1070, 1072],
     [1077, 1082, 1072, 1081, 1089, 1094, 1121, 1126],
     [1082, 1072, 1081, 1089, 1094, 1121, 1126, 1082],
     [1082, 1072, 1081, 1089, 1094, 1121, 1126, 1117],
     [1072, 1081, 1089, 1094, 1121, 1126, 1117, 1072],
     [1081, 1089, 1094, 1121, 1126, 1117, 1072, 1081],
     [1089, 1094, 1121, 1126, 1070, 1082, 1072, 1081],
     [1089, 1094, 1121, 1126, 1070, 1082, 1072, 1081],
     [1089, 1094, 1121, 1126, 1070, 1082, 1072, 1081],
     [1089, 1094, 1121, 1126, 1070, 1077, 1082, 1072],
     [1076, 1078, 1081, 1089, 1094, 1121, 1126, 1070],
     [1082, 1072, 1077, 1078, 1081, 1089, 1094, 1121],
     [1126, 1070, 1082, 1072, 1081, 1089, 1094, 1121],
     [1126, 1070, 1082, 1072, 1081, 1089, 1094, 1121],
     [1126, 1117, 1072, 1081, 1089, 1094, 1121, 1126],
     [1082, 1072, 1081, 1089, 1094, 1121, 1126, 1072],
     [1073, 1074, 1117, 1075, 1081, 1089, 1094, 1121],
     [1126, 1070, 1082, 1117, 1072, 1081, 1089, 1094],
     [1121, 1126, 1082, 1117, 1072, 1081, 1089, 1094],
     [1121, 1126, 1082, 1117, 1072, 1081, 1089, 1094],
     [1121, 1126, 1082, 1117, 1072, 1081, 1089, 1094],
     [1121, 1126, 1070, 1082, 1117, 1072, 1081, 1089],
     [1094, 1121, 1126, 1070, 1082, 1117, 1072, 1081],
     [1089, 1094, 1121, 1126, 1070, 1082, 1117, 1072]]"

definition sup_trans_keys_19 :: "int list list" where
  "sup_trans_keys_19 =
    [[1081, 1089, 1094, 1121, 1126, 1070, 1077, 1082],
     [1117, 1072, 1076, 1078, 1081, 1089, 1094, 1121],
     [1126, 1070, 1082, 1117, 1072, 1077, 1078, 1081],
     [1089, 1094, 1121, 1126, 1070, 1082, 1117, 1072],
     [1081, 1089, 1094, 1121, 1126, 1070, 1082, 1117],
     [1072, 1081, 1089, 1094, 1121, 1126, 1082, 1117],
     [1072, 1081, 1089, 1094, 1121, 1126, 1072, 1073],
     [1074, 1117, 1075, 1081, 1089, 1094, 1121, 1126],
     [1070, 1082, 1117, 1072, 1081, 1089, 1094, 1121],
     [1126, 1082, 1117, 1072, 1081, 1089, 1094, 1121],
     [1126, 1082, 1117, 1072, 1081, 1089, 1094, 1121],
     [1126, 1082, 1117, 1072, 1073, 1074, 1075, 1081],
     [1089, 1094, 1121, 1126, 1070, 1082, 1117, 1072],
     [1081, 1089, 1094, 1121, 1126, 1070, 1082, 1117],
     [1072, 1081, 1089, 1094, 1121, 1126, 1070, 1082],
     [1117, 1072, 1081, 1089, 1094, 1121, 1126, 1070],
     [1077, 1082, 1117, 1072, 1076, 1078, 1081, 1089],
     [1094, 1121, 1126, 1070, 1082, 1117, 1072, 1077],
     [1078, 1081, 1089, 1094, 1121, 1126, 1070, 1082],
     [1117, 1072, 1081, 1089, 1094, 1121, 1126, 1070],
     [1082, 1117, 1072, 1081, 1089, 1094, 1121, 1126],
     [1082, 1117, 1072, 1081, 1089, 1094, 1121, 1126],
     [1072, 1073, 1074, 1117, 1075, 1081, 1089, 1094],
     [1121, 1126, 1070, 1082, 1117, 1072, 1081, 1089],
     [1094, 1121, 1126, 1082, 1117, 1072, 1081, 1089],
     [1094, 1121, 1126, 1082, 1117, 1072, 1081, 1089],
     [1094, 1121, 1126, 1082, 1117, 1072, 1073, 1074],
     [1075, 1081, 1089, 1094, 1121, 1126, 1070, 1082],
     [1117, 1072, 1081, 1089, 1094, 1121, 1126, 1070],
     [1082, 1117, 1072, 1081, 1089, 1094, 1121, 1126],
     [1070, 1082, 1117, 1072, 1081, 1089, 1094, 1121],
     [1126, 1070, 1077, 1082, 1117, 1072, 1076, 1078],
     [1081, 1089, 1094, 1121, 1126, 1070, 1082, 1117],
     [1072, 1077, 1078, 1081, 1089, 1094, 1121, 1126],
     [1070, 1082, 1117, 1072, 1081, 1089, 1094, 1121],
     [1126, 1070, 1082, 1117, 1072, 1081, 1089, 1094],
     [1121, 1126, 1082, 1117, 1072, 1081, 1089, 1094],
     [1121, 1126, 1072, 1073, 1074, 1117, 1075, 1081],
     [1089, 1094, 1121, 1126, 1070, 1082, 1117, 1072],
     [1081, 1089, 1094, 1121, 1126, 1082, 1117, 1072],
     [1081, 1089, 1094, 1121, 1126, 1082, 1117, 1072],
     [1081, 1089, 1094, 1121, 1126, 1082, 1117, 1072],
     [1073, 1074, 1075, 1081, 1089, 1094, 1121, 1126],
     [1070, 1082, 1117, 1072, 1081, 1089, 1094, 1121],
     [1126, 1070, 1082, 1117, 1072, 1081, 1089, 1094],
     [1121, 1126, 1070, 1082, 1117, 1072, 1081, 1089],
     [1094, 1121, 1126, 1070, 1077, 1082, 1117, 1072],
     [1076, 1078, 1081, 1089, 1094, 1121, 1126, 1070],
     [1082, 1117, 1072, 1077, 1078, 1081, 1089, 1094],
     [1121, 1126, 1070, 1082, 1117, 1072, 1081, 1089],
     [1094, 1121, 1126, 1070, 1082, 1117, 1072, 1081],
     [1089, 1094, 1121, 1126, 1082, 1117, 1072, 1081],
     [1089, 1094, 1121, 1126, 1072, 1073, 1074, 1117],
     [1075, 1081, 1089, 1094, 1121, 1126, 1070, 1082],
     [1117, 1072, 1081, 1089, 1094, 1121, 1126, 1082],
     [1117, 1072, 1081, 1089, 1094, 1121, 1126, 1082],
     [1117, 1072, 1081, 1089, 1094, 1121, 1126, 1082],
     [1117, 1072, 1073, 1074, 1075, 1081, 1089, 1094],
     [1121, 1126, 1070, 1082, 1117, 1072, 1081, 1089],
     [1094, 1121, 1126, 1070, 1082, 1117, 1072, 1081],
     [1089, 1094, 1121, 1126, 1070, 1082, 1117, 1072],
     [1081, 1089, 1094, 1121, 1126, 1070, 1077, 1082],
     [1117, 1072, 1076, 1078, 1081, 1089, 1094, 1121],
     [1126, 1070, 1082, 1117, 1072, 1077, 1078, 1081],
     [1089, 1094, 1121, 1126, 1070, 1082, 1117, 1072],
     [1081, 1089, 1094, 1121, 1126, 1070, 1082, 1117],
     [1072, 1081, 1089, 1094, 1121, 1126, 1082, 1117],
     [1072, 1081, 1089, 1094, 1121, 1126, 1082, 1072],
     [1073, 1074, 1117, 1075, 1081, 1089, 1094, 1121],
     [1126, 1070, 1082, 1117, 1072, 1081, 1089, 1094],
     [1121, 1126, 1082, 1117, 1072, 1081, 1089, 1094],
     [1121, 1126, 1082, 1117, 1072, 1081, 1089, 1094],
     [1121, 1126, 1082, 1117, 1072, 1073, 1074, 1075],
     [1081, 1089, 1094, 1121, 1126, 1070, 1082, 1117],
     [1072, 1081, 1089, 1094, 1121, 1126, 1070, 1082],
     [1117, 1072, 1081, 1089, 1094, 1121, 1126, 1070],
     [1082, 1117, 1072, 1081, 1089, 1094, 1121, 1126],
     [1070, 1077, 1082, 1117, 1072, 1076, 1078, 1081],
     [1089, 1094, 1121, 1126, 1070, 1082, 1117, 1072],
     [1077, 1078, 1081, 1089, 1094, 1121, 1126, 1070],
     [1082, 1117, 1072, 1081, 1089, 1094, 1121, 1126],
     [1070, 1082, 1117, 1072, 1081, 1089, 1094, 1121],
     [1126, 1082, 1117, 1072, 1081, 1089, 1094, 1121],
     [1126, 1072, 1081, 1089, 1094, 1121, 1126, 1072],
     [1081, 1089, 1094, 1121, 1126, 0, 1033, 1037],
     [1056, 1057, 1061, 1071, 1082, 1083, 1085, 1088],
     [1119, 1150, 1060, 1067, 1069, 1081, 1089, 1114],
     [1121, 1146, 1072, 1081, 1089, 1094, 1121, 1126],
     [1072, 1081, 1089, 1094, 1121, 1126, 0, 1033],
     [1037, 1056, 1057, 1061, 1083, 1085, 1115, 1119],
     [1150, 1060, 1067, 1069, 1082, 1088, 1114, 1121],
     [1146, 1033, 1037, 1056, 1057, 1061, 1063, 1066],
     [1067, 1082, 1084, 1097, 1129, 1150, 1069, 1070],
     [1072, 1081, 1089, 1114, 1119, 1120, 1121, 1146],
     [1033, 1037, 1056, 1057, 1061, 1063, 1066, 1067],
     [1082, 1084, 1104, 1136, 1150, 1069, 1070, 1072],
     [1081, 1089, 1114, 1119, 1120, 1121, 1146, 1033],
     [1037, 1056, 1057, 1061, 1063, 1066, 1067, 1082],
     [1084, 1107, 1139, 1150, 1069, 1070, 1072, 1081],
     [1089, 1114, 1119, 1120, 1121, 1146, 1057, 1061],
     [1072, 1073, 1074, 1085, 1115, 1119, 1150, 1059],
     [1067, 1069, 1071, 1075, 1081, 1089, 1114, 1121],
     [1146, 1057, 1061, 1082, 1085, 1088, 1119, 1150],
     [1059, 1067, 1069, 1081, 1089, 1114, 1121, 1146],
     [1072, 1081, 1089, 1094, 1121, 1126, 1072, 1081],
     [1089, 1094, 1121, 1126, 1057, 1061, 1085, 1088],
     [1119, 1150, 1060, 1067, 1069, 1070, 1072, 1081],
     [1089, 1114, 1121, 1146, 1072, 1081, 1089, 1094],
     [1121, 1126, 1072, 1081, 1089, 1094, 1121, 1126],
     [1072, 1073, 1074, 1115, 1075, 1081, 1089, 1114],
     [1121, 1146, 1069, 1070, 1119, 1072, 1081, 1089],
     [1114, 1121, 1146, 1069, 1119, 1072, 1081, 1089],
     [1114, 1121, 1146, 1069, 1070, 1119, 1072, 1081],
     [1089, 1114, 1121, 1146, 1072, 1081, 1089, 1114],
     [1121, 1146, 0, 1033, 1037, 1056, 1069, 1070],
     [1082, 1083, 1119, 1072, 1081, 1089, 1114, 1121],
     [1146, 1069, 1119, 1072, 1081, 1089, 1114, 1121],
     [1146, 0, 1033, 1037, 1056, 1082, 1083, 1072],
     [1081, 1089, 1114, 1121, 1146, 1072, 1078, 1073],
     [1077, 1079, 1081, 1072, 1073, 1081, 1072, 1073],
     [1081, 1073, 1081, 0, 1033, 1037, 1056, 1083],
     [0, 1033, 1037, 1056, 1083, 1072, 1081, 0],
     [1033, 1037, 1056, 1083, 1072, 1081, 0, 1033],
     [1037, 1056, 1083, 1072, 1081, 0, 1033, 1037],
     [1056, 1083, 1072, 1081, 0, 1033, 1037, 1056],
     [1077, 1083, 1072, 1076, 1078, 1081, 0, 1033],
     [1037, 1056, 1077, 1083, 1072, 1076, 1078, 1081],
     [0, 1033, 1037, 1056, 1075, 1083, 1072, 1074],
     [1076, 1081, 0, 1033, 1037, 1056, 1083, 1072],
     [1077, 1072, 1073, 1074, 1075, 1081, 1089, 1114],
     [1121, 1146, 1069, 1070, 1119, 1072, 1081, 1089],
     [1114, 1121, 1146, 1072, 1073, 1074, 1075, 1081],
     [1089, 1114, 1121, 1146, 1069, 1070, 1119, 1072],
     [1081, 1089, 1114, 1121, 1146, 1072, 1073, 1074],
     [1075, 1081, 1089, 1114, 1121, 1146, 0, 1033],
     [1037, 1056, 1069, 1070, 1082, 1083, 1119, 1072],
     [1081, 1089, 1114, 1121, 1146, 0, 1033, 1037],
     [1056, 1069, 1070, 1082, 1083, 1119, 1072, 1081],
     [1089, 1114, 1121, 1146, 0, 1033, 1037, 1056],
     [1069, 1070, 1082, 1083, 1119, 1072, 1081, 1089],
     [1114, 1121, 1146, 0, 1033, 1037, 1056, 1069],
     [1070, 1077, 1082, 1083, 1119, 1072, 1076, 1078],
     [1081, 1089, 1114, 1121, 1146, 0, 1033, 1037],
     [1056, 1069, 1070, 1082, 1083, 1119, 1072, 1077],
     [1078, 1081, 1089, 1114, 1121, 1146, 1069, 1070],
     [1119, 1072, 1081, 1089, 1114, 1121, 1146, 1069],
     [1070, 1119, 1072, 1081, 1089, 1114, 1121, 1146],
     [1069, 1070, 1077, 1119, 1072, 1076, 1078, 1081],
     [1089, 1114, 1121, 1146, 1069, 1070, 1119, 1072],
     [1077, 1078, 1081, 1089, 1114, 1121, 1146, 1069]]"

definition sup_trans_keys_20 :: "int list list" where
  "sup_trans_keys_20 =
    [[1070, 1119, 1072, 1081, 1089, 1114, 1121, 1146],
     [1069, 1070, 1119, 1072, 1081, 1089, 1114, 1121],
     [1146, 1069, 1070, 1077, 1119, 1072, 1076, 1078],
     [1081, 1089, 1114, 1121, 1146, 1069, 1070, 1119],
     [1072, 1077, 1078, 1081, 1089, 1114, 1121, 1146],
     [1069, 1070, 1119, 1072, 1081, 1089, 1114, 1121],
     [1146, 1069, 1070, 1119, 1072, 1081, 1089, 1114],
     [1121, 1146, 1069, 1070, 1077, 1119, 1072, 1076],
     [1078, 1081, 1089, 1114, 1121, 1146, 1069, 1070],
     [1119, 1072, 1077, 1078, 1081, 1089, 1114, 1121],
     [1146, 1082, 1072, 1081, 1089, 1094, 1121, 1126],
     [1082, 1072, 1081, 1089, 1094, 1121, 1126, 1082],
     [1072, 1081, 1089, 1094, 1121, 1126, 1082, 1072],
     [1081, 1089, 1094, 1121, 1126, 1082, 1082, 1072],
     [1081, 1089, 1094, 1121, 1126, 1082, 1072, 1081],
     [1089, 1094, 1121, 1126, 1082, 1072, 1081, 1089],
     [1094, 1121, 1126, 1082, 1072, 1081, 1089, 1094],
     [1121, 1126, 1082, 1082, 1072, 1081, 1089, 1094],
     [1121, 1126, 1082, 1072, 1081, 1089, 1094, 1121],
     [1126, 1082, 1072, 1081, 1089, 1094, 1121, 1126],
     [1082, 1072, 1081, 1089, 1094, 1121, 1126, 1082],
     [1082, 1072, 1081, 1089, 1094, 1121, 1126, 1082],
     [1072, 1081, 1089, 1094, 1121, 1126, 1082, 1072],
     [1081, 1089, 1094, 1121, 1126, 1082, 1072, 1081],
     [1089, 1094, 1121, 1126, 1082, 1082, 1072, 1081],
     [1089, 1094, 1121, 1126, 1082, 1072, 1081, 1089],
     [1094, 1121, 1126, 1082, 1072, 1081, 1089, 1094],
     [1121, 1126, 1082, 1072, 1081, 1089, 1094, 1121],
     [1126, 1082, 1082, 1072, 1081, 1089, 1094, 1121],
     [1126, 1082, 1072, 1081, 1089, 1094, 1121, 1126],
     [1082, 1072, 1081, 1089, 1094, 1121, 1126, 1082],
     [1072, 1081, 1089, 1094, 1121, 1126, 1082, 1072],
     [1073, 1074, 1082, 1075, 1081, 1089, 1094, 1121],
     [1126, 1070, 1082, 1072, 1081, 1089, 1094, 1121],
     [1126, 1072, 1073, 1074, 1075, 1081, 1070, 1072],
     [1073, 1074, 1075, 1081, 1070, 1072, 1073, 1074],
     [1075, 1081, 1117, 0, 1033, 1037, 1056, 1082],
     [1083, 1117, 1072, 1081, 1117, 1072, 1081, 1077],
     [1117, 1072, 1076, 1078, 1081, 1117, 1072, 1077],
     [1070, 1072, 1081, 1070, 1072, 1081, 1070, 1077],
     [1072, 1076, 1078, 1081, 1070, 1072, 1077, 1070],
     [1072, 1081, 1070, 1072, 1081, 1070, 1077, 1072],
     [1076, 1078, 1081, 1070, 1072, 1077, 1082, 1072],
     [1081, 1089, 1094, 1121, 1126, 1082, 1072, 1081],
     [1089, 1094, 1121, 1126, 1082, 1082, 1072, 1081],
     [1089, 1094, 1121, 1126, 1117, 1072, 1081, 1089],
     [1094, 1121, 1126, 1117, 1072, 1081, 1089, 1094],
     [1121, 1126, 1117, 1072, 1081, 1089, 1094, 1121],
     [1126, 1070, 1082, 1072, 1081, 1089, 1094, 1121],
     [1126, 1070, 1082, 1072, 1081, 1089, 1094, 1121],
     [1126, 1070, 1082, 1072, 1081, 1089, 1094, 1121],
     [1126, 1070, 1077, 1082, 1072, 1076, 1078, 1081],
     [1089, 1094, 1121, 1126, 1070, 1082, 1072, 1077],
     [1078, 1081, 1089, 1094, 1121, 1126, 1070, 1082],
     [1072, 1081, 1089, 1094, 1121, 1126, 1070, 1082],
     [1072, 1081, 1089, 1094, 1121, 1126, 1117, 1072],
     [1081, 1089, 1094, 1121, 1126, 1082, 1072, 1081],
     [1089, 1094, 1121, 1126, 1072, 1073, 1074, 1117],
     [1075, 1081, 1089, 1094, 1121, 1126, 1070, 1082],
     [1117, 1072, 1081, 1089, 1094, 1121, 1126, 1082],
     [1117, 1072, 1081, 1089, 1094, 1121, 1126, 1082],
     [1117, 1072, 1081, 1089, 1094, 1121, 1126, 1082],
     [1117, 1072, 1081, 1089, 1094, 1121, 1126, 1070],
     [1082, 1117, 1072, 1081, 1089, 1094, 1121, 1126],
     [1070, 1082, 1117, 1072, 1081, 1089, 1094, 1121],
     [1126, 1070, 1082, 1117, 1072, 1081, 1089, 1094],
     [1121, 1126, 1070, 1077, 1082, 1117, 1072, 1076],
     [1078, 1081, 1089, 1094, 1121, 1126, 1070, 1082],
     [1117, 1072, 1077, 1078, 1081, 1089, 1094, 1121],
     [1126, 1070, 1082, 1117, 1072, 1081, 1089, 1094],
     [1121, 1126, 1070, 1082, 1117, 1072, 1081, 1089],
     [1094, 1121, 1126, 1082, 1117, 1072, 1081, 1089],
     [1094, 1121, 1126, 1072, 1073, 1074, 1117, 1075],
     [1081, 1089, 1094, 1121, 1126, 1070, 1082, 1117],
     [1072, 1081, 1089, 1094, 1121, 1126, 1082, 1117],
     [1072, 1081, 1089, 1094, 1121, 1126, 1082, 1117],
     [1072, 1081, 1089, 1094, 1121, 1126, 1082, 1117],
     [1072, 1073, 1074, 1075, 1081, 1089, 1094, 1121],
     [1126, 1070, 1082, 1117, 1072, 1081, 1089, 1094],
     [1121, 1126, 1070, 1082, 1117, 1072, 1081, 1089],
     [1094, 1121, 1126, 1070, 1082, 1117, 1072, 1081],
     [1089, 1094, 1121, 1126, 1070, 1077, 1082, 1117],
     [1072, 1076, 1078, 1081, 1089, 1094, 1121, 1126],
     [1070, 1082, 1117, 1072, 1077, 1078, 1081, 1089],
     [1094, 1121, 1126, 1070, 1082, 1117, 1072, 1081],
     [1089, 1094, 1121, 1126, 1070, 1082, 1117, 1072],
     [1081, 1089, 1094, 1121, 1126, 1082, 1117, 1072],
     [1081, 1089, 1094, 1121, 1126, 1072, 1073, 1074],
     [1117, 1075, 1081, 1089, 1094, 1121, 1126, 1070],
     [1082, 1117, 1072, 1081, 1089, 1094, 1121, 1126],
     [1082, 1117, 1072, 1081, 1089, 1094, 1121, 1126],
     [1082, 1117, 1072, 1081, 1089, 1094, 1121, 1126],
     [1082, 1117, 1072, 1073, 1074, 1075, 1081, 1089],
     [1094, 1121, 1126, 1070, 1082, 1117, 1072, 1081],
     [1089, 1094, 1121, 1126, 1070, 1082, 1117, 1072],
     [1081, 1089, 1094, 1121, 1126, 1070, 1082, 1117],
     [1072, 1081, 1089, 1094, 1121, 1126, 1070, 1077],
     [1082, 1117, 1072, 1076, 1078, 1081, 1089, 1094],
     [1121, 1126, 1070, 1082, 1117, 1072, 1077, 1078],
     [1081, 1089, 1094, 1121, 1126, 1070, 1082, 1117],
     [1072, 1081, 1089, 1094, 1121, 1126, 1070, 1082],
     [1117, 1072, 1081, 1089, 1094, 1121, 1126, 1082],
     [1117, 1072, 1081, 1089, 1094, 1121, 1126, 1072],
     [1073, 1074, 1117, 1075, 1081, 1089, 1094, 1121],
     [1126, 1070, 1082, 1117, 1072, 1081, 1089, 1094],
     [1121, 1126, 1082, 1117, 1072, 1081, 1089, 1094],
     [1121, 1126, 1082, 1117, 1072, 1081, 1089, 1094],
     [1121, 1126, 1082, 1117, 1072, 1073, 1074, 1075],
     [1081, 1089, 1094, 1121, 1126, 1070, 1082, 1117],
     [1072, 1081, 1089, 1094, 1121, 1126, 1070, 1082],
     [1117, 1072, 1081, 1089, 1094, 1121, 1126, 1070],
     [1082, 1117, 1072, 1081, 1089, 1094, 1121, 1126],
     [1070, 1077, 1082, 1117, 1072, 1076, 1078, 1081],
     [1089, 1094, 1121, 1126, 1070, 1082, 1117, 1072],
     [1077, 1078, 1081, 1089, 1094, 1121, 1126, 1070],
     [1082, 1117, 1072, 1081, 1089, 1094, 1121, 1126],
     [1070, 1082, 1117, 1072, 1081, 1089, 1094, 1121],
     [1126, 1082, 1117, 1072, 1081, 1089, 1094, 1121],
     [1126, 1072, 1073, 1074, 1117, 1075, 1081, 1089],
     [1094, 1121, 1126, 1070, 1082, 1117, 1072, 1081],
     [1089, 1094, 1121, 1126, 1082, 1117, 1072, 1081],
     [1089, 1094, 1121, 1126, 1082, 1117, 1072, 1081],
     [1089, 1094, 1121, 1126, 1082, 1117, 1072, 1073],
     [1074, 1075, 1081, 1089, 1094, 1121, 1126, 1070],
     [1082, 1117, 1072, 1081, 1089, 1094, 1121, 1126],
     [1070, 1082, 1117, 1072, 1081, 1089, 1094, 1121],
     [1126, 1070, 1082, 1117, 1072, 1081, 1089, 1094],
     [1121, 1126, 1070, 1077, 1082, 1117, 1072, 1076],
     [1078, 1081, 1089, 1094, 1121, 1126, 1070, 1082],
     [1117, 1072, 1077, 1078, 1081, 1089, 1094, 1121],
     [1126, 1070, 1082, 1117, 1072, 1081, 1089, 1094],
     [1121, 1126, 1070, 1082, 1117, 1072, 1081, 1089],
     [1094, 1121, 1126, 1082, 1117, 1072, 1081, 1089],
     [1094, 1121, 1126, 1082, 1072, 1073, 1074, 1117],
     [1075, 1081, 1089, 1094, 1121, 1126, 1070, 1082],
     [1117, 1072, 1081, 1089, 1094, 1121, 1126, 1082],
     [1117, 1072, 1081, 1089, 1094, 1121, 1126, 1082],
     [1117, 1072, 1081, 1089, 1094, 1121, 1126, 1082],
     [1117, 1072, 1073, 1074, 1075, 1081, 1089, 1094],
     [1121, 1126, 1070, 1082, 1117, 1072, 1081, 1089],
     [1094, 1121, 1126, 1070, 1082, 1117, 1072, 1081],
     [1089, 1094, 1121, 1126, 1070, 1082, 1117, 1072],
     [1081, 1089, 1094, 1121, 1126, 1070, 1077, 1082],
     [1117, 1072, 1076, 1078, 1081, 1089, 1094, 1121],
     [1126, 1070, 1082, 1117, 1072, 1077, 1078, 1081],
     [1089, 1094, 1121, 1126, 1070, 1082, 1117, 1072],
     [1081, 1089, 1094, 1121, 1126, 1070, 1082, 1117],
     [1072, 1081, 1089, 1094, 1121, 1126, 1082, 1117],
     [1072, 1081, 1089, 1094, 1121, 1126, 1057, 1061],
     [1069, 1070, 1071, 1082, 1085, 1088, 1119, 1150]]"

definition sup_trans_keys_21 :: "int list list" where
  "sup_trans_keys_21 =
    [[1059, 1067, 1072, 1081, 1089, 1114, 1121, 1146],
     [1057, 1061, 1069, 1082, 1085, 1088, 1119, 1150],
     [1059, 1067, 1070, 1071, 1072, 1081, 1089, 1114],
     [1121, 1146, 1057, 1061, 1069, 1070, 1071, 1082],
     [1085, 1088, 1119, 1150, 1059, 1067, 1072, 1081],
     [1089, 1114, 1121, 1146, 1057, 1061, 1082, 1085],
     [1088, 1119, 1150, 1059, 1067, 1069, 1071, 1072],
     [1081, 1089, 1114, 1121, 1146, 0, 1033, 1037],
     [1056, 1057, 1061, 1069, 1070, 1071, 1082, 1083],
     [1085, 1088, 1119, 1150, 1059, 1067, 1072, 1081],
     [1089, 1114, 1121, 1146, 1057, 1061, 1069, 1082],
     [1085, 1088, 1119, 1150, 1059, 1067, 1070, 1071],
     [1072, 1081, 1089, 1114, 1121, 1146, 0, 1033],
     [1037, 1056, 1057, 1061, 1082, 1083, 1085, 1088],
     [1119, 1150, 1059, 1067, 1069, 1071, 1072, 1081],
     [1089, 1114, 1121, 1146, 1057, 1061, 1072, 1078],
     [1085, 1088, 1119, 1150, 1060, 1067, 1069, 1070],
     [1073, 1077, 1079, 1081, 1089, 1114, 1121, 1146],
     [1057, 1061, 1072, 1085, 1088, 1119, 1150, 1060],
     [1067, 1069, 1070, 1073, 1081, 1089, 1114, 1121],
     [1146, 1057, 1061, 1072, 1085, 1088, 1119, 1150],
     [1060, 1067, 1069, 1070, 1073, 1081, 1089, 1114],
     [1121, 1146, 1057, 1061, 1072, 1085, 1088, 1119],
     [1150, 1060, 1067, 1069, 1070, 1073, 1081, 1089],
     [1114, 1121, 1146, 0, 1033, 1037, 1056, 1057],
     [1061, 1083, 1085, 1088, 1119, 1150, 1060, 1067],
     [1069, 1070, 1072, 1081, 1089, 1114, 1121, 1146],
     [0, 1033, 1037, 1056, 1057, 1061, 1083, 1085],
     [1088, 1119, 1150, 1060, 1067, 1069, 1070, 1072],
     [1081, 1089, 1114, 1121, 1146, 0, 1033, 1037],
     [1056, 1057, 1061, 1083, 1085, 1088, 1119, 1150],
     [1060, 1067, 1069, 1070, 1072, 1081, 1089, 1114],
     [1121, 1146, 0, 1033, 1037, 1056, 1057, 1061],
     [1083, 1085, 1088, 1119, 1150, 1060, 1067, 1069],
     [1070, 1072, 1081, 1089, 1114, 1121, 1146, 0],
     [1033, 1037, 1056, 1057, 1061, 1083, 1085, 1088],
     [1119, 1150, 1060, 1067, 1069, 1070, 1072, 1081],
     [1089, 1114, 1121, 1146, 0, 1033, 1037, 1056],
     [1057, 1061, 1077, 1083, 1085, 1088, 1119, 1150],
     [1060, 1067, 1069, 1070, 1072, 1076, 1078, 1081],
     [1089, 1114, 1121, 1146, 0, 1033, 1037, 1056],
     [1057, 1061, 1077, 1083, 1085, 1088, 1119, 1150],
     [1060, 1067, 1069, 1070, 1072, 1076, 1078, 1081],
     [1089, 1114, 1121, 1146, 0, 1033, 1037, 1056],
     [1057, 1061, 1075, 1083, 1085, 1088, 1119, 1150],
     [1060, 1067, 1069, 1070, 1072, 1074, 1076, 1081],
     [1089, 1114, 1121, 1146, 0, 1033, 1037, 1056],
     [1057, 1061, 1083, 1085, 1088, 1119, 1150, 1060],
     [1067, 1069, 1070, 1072, 1077, 1078, 1081, 1089],
     [1114, 1121, 1146, 1057, 1061, 1072, 1073, 1074],
     [1082, 1085, 1088, 1119, 1150, 1059, 1067, 1069],
     [1071, 1075, 1081, 1089, 1114, 1121, 1146, 1057],
     [1061, 1069, 1070, 1071, 1082, 1085, 1088, 1119],
     [1150, 1059, 1067, 1072, 1081, 1089, 1114, 1121],
     [1146, 1057, 1061, 1072, 1073, 1074, 1082, 1085],
     [1088, 1119, 1150, 1059, 1067, 1069, 1071, 1075],
     [1081, 1089, 1114, 1121, 1146, 1057, 1061, 1069],
     [1070, 1071, 1082, 1085, 1088, 1119, 1150, 1059],
     [1067, 1072, 1081, 1089, 1114, 1121, 1146, 1057],
     [1061, 1072, 1073, 1074, 1082, 1085, 1088, 1119],
     [1150, 1059, 1067, 1069, 1071, 1075, 1081, 1089],
     [1114, 1121, 1146, 0, 1033, 1037, 1056, 1057],
     [1061, 1069, 1070, 1071, 1082, 1083, 1085, 1088],
     [1119, 1150, 1059, 1067, 1072, 1081, 1089, 1114],
     [1121, 1146, 0, 1033, 1037, 1056, 1057, 1061],
     [1069, 1070, 1071, 1082, 1083, 1085, 1088, 1119],
     [1150, 1059, 1067, 1072, 1081, 1089, 1114, 1121],
     [1146, 0, 1033, 1037, 1056, 1057, 1061, 1069],
     [1070, 1071, 1082, 1083, 1085, 1088, 1119, 1150],
     [1059, 1067, 1072, 1081, 1089, 1114, 1121, 1146],
     [0, 1033, 1037, 1056, 1057, 1061, 1069, 1070],
     [1071, 1077, 1082, 1083, 1085, 1088, 1119, 1150],
     [1059, 1067, 1072, 1076, 1078, 1081, 1089, 1114],
     [1121, 1146, 0, 1033, 1037, 1056, 1057, 1061],
     [1069, 1070, 1071, 1082, 1083, 1085, 1088, 1119],
     [1150, 1059, 1067, 1072, 1077, 1078, 1081, 1089],
     [1114, 1121, 1146, 1057, 1061, 1069, 1070, 1071],
     [1082, 1085, 1088, 1119, 1150, 1059, 1067, 1072],
     [1081, 1089, 1114, 1121, 1146, 1057, 1061, 1069],
     [1070, 1071, 1082, 1085, 1088, 1119, 1150, 1059],
     [1067, 1072, 1081, 1089, 1114, 1121, 1146, 1057],
     [1061, 1069, 1070, 1071, 1077, 1082, 1085, 1088],
     [1119, 1150, 1059, 1067, 1072, 1076, 1078, 1081],
     [1089, 1114, 1121, 1146, 1057, 1061, 1069, 1070],
     [1071, 1082, 1085, 1088, 1119, 1150, 1059, 1067],
     [1072, 1077, 1078, 1081, 1089, 1114, 1121, 1146],
     [1057, 1061, 1069, 1070, 1071, 1082, 1085, 1088],
     [1119, 1150, 1059, 1067, 1072, 1081, 1089, 1114],
     [1121, 1146, 1057, 1061, 1069, 1070, 1071, 1082],
     [1085, 1088, 1119, 1150, 1059, 1067, 1072, 1081],
     [1089, 1114, 1121, 1146, 1057, 1061, 1069, 1070],
     [1071, 1077, 1082, 1085, 1088, 1119, 1150, 1059],
     [1067, 1072, 1076, 1078, 1081, 1089, 1114, 1121],
     [1146, 1057, 1061, 1069, 1070, 1071, 1082, 1085],
     [1088, 1119, 1150, 1059, 1067, 1072, 1077, 1078],
     [1081, 1089, 1114, 1121, 1146, 1057, 1061, 1069],
     [1070, 1071, 1082, 1085, 1088, 1119, 1150, 1059],
     [1067, 1072, 1081, 1089, 1114, 1121, 1146, 1057],
     [1061, 1069, 1070, 1071, 1082, 1085, 1088, 1119],
     [1150, 1059, 1067, 1072, 1081, 1089, 1114, 1121],
     [1146, 1057, 1061, 1069, 1070, 1071, 1077, 1082],
     [1085, 1088, 1119, 1150, 1059, 1067, 1072, 1076],
     [1078, 1081, 1089, 1114, 1121, 1146, 1057, 1061],
     [1069, 1070, 1071, 1082, 1085, 1088, 1119, 1150],
     [1059, 1067, 1072, 1077, 1078, 1081, 1089, 1114],
     [1121, 1146, 1033, 1037, 1056, 1057, 1061, 1063],
     [1066, 1067, 1082, 1084, 1150, 1069, 1070, 1072],
     [1081, 1089, 1114, 1119, 1120, 1121, 1146, 1033],
     [1037, 1056, 1057, 1061, 1063, 1066, 1067, 1082],
     [1084, 1093, 1125, 1150, 1069, 1070, 1072, 1081],
     [1089, 1114, 1119, 1120, 1121, 1146, 1033, 1037],
     [1056, 1057, 1061, 1063, 1066, 1067, 1082, 1084],
     [1100, 1132, 1150, 1069, 1070, 1072, 1081, 1089],
     [1114, 1119, 1120, 1121, 1146, 1033, 1037, 1056],
     [1057, 1061, 1063, 1066, 1067, 1082, 1084, 1150],
     [1069, 1070, 1072, 1081, 1089, 1114, 1119, 1120],
     [1121, 1146, 1059, 1066, 1067, 1064, 1065, 1069],
     [1070, 1072, 1081, 1089, 1094, 1121, 1126, 0],
     [1033, 1037, 1056, 1059, 1083, 1064, 1066, 1069],
     [1070, 1072, 1081, 1089, 1094, 1121, 1126, 1059],
     [1066, 1064, 1065, 1069, 1070, 1072, 1081, 1089],
     [1094, 1121, 1126, 1064, 1065, 1069, 1070, 1072],
     [1081, 0, 1033, 1037, 1056, 1083, 1064, 1065],
     [1069, 1070, 1072, 1081, 1033, 1037, 1056, 1057],
     [1061, 1063, 1066, 1084, 1150, 1579, 1594, 1835],
     [1850, 2091, 2106, 1119, 1120, 1581, 1582, 1584],
     [1593, 1601, 1626, 1633, 1658, 1837, 1838, 1840],
     [1849, 1857, 1882, 1889, 1914, 2093, 2094, 2096],
     [2105, 2113, 2138, 2145, 2170, 0, 556, 575],
     [1033, 1037, 1056, 1569, 1571, 1573, 1583, 1594],
     [1597, 1600, 1627, 1631, 1662, 1825, 1827, 1829],
     [1839, 1850, 1851, 1853, 1856, 1883, 1887, 1918],
     [2081, 2083, 2085, 2095, 2106, 2107, 2109, 2112],
     [2139, 2143, 2174, 1572, 1579, 1581, 1595, 1601],
     [1626, 1633, 1658, 1828, 1835, 1837, 1849, 1857],
     [1882, 1889, 1914, 2084, 2091, 2093, 2105, 2113],
     [2138, 2145, 2170, 0, 556, 575, 1033, 1037],
     [1056, 1569, 1571, 1573, 1594, 1597, 1600, 1631],
     [1662, 1825, 1827, 1829, 1850, 1851, 1853, 1856],
     [1887, 1918, 2081, 2083, 2085, 2106, 2107, 2109],
     [2112, 2143, 2174, 1572, 1579, 1581, 1595, 1601],
     [1626, 1633, 1658, 1828, 1835, 1837, 1849, 1857],
     [1882, 1889, 1914, 2084, 2091, 2093, 2105, 2113],
     [2138, 2145, 2170, 556, 571, 575, 1569, 1573],
     [1594, 1597, 1600, 1631, 1662, 1825, 1829, 1850],
     [1853, 1856, 1887, 1918, 2081, 2085, 2106, 2109],
     [2112, 2143, 2174, 1571, 1579, 1581, 1593, 1601],
     [1626, 1633, 1658, 1827, 1835, 1837, 1849, 1857],
     [1882, 1889, 1914, 2083, 2091, 2093, 2105, 2113],
     [2138, 2145, 2170, 1584, 1593, 1601, 1606, 1633]]"

definition sup_trans_keys_22 :: "int list list" where
  "sup_trans_keys_22 =
    [[1638, 1840, 1849, 1857, 1862, 1889, 1894, 2096],
     [2105, 2113, 2118, 2145, 2150, 1584, 1593, 1601],
     [1606, 1633, 1638, 1840, 1849, 1857, 1862, 1889],
     [1894, 2096, 2105, 2113, 2118, 2145, 2150, 556],
     [1569, 1573, 1597, 1600, 1631, 1662, 1825, 1829],
     [1853, 1856, 1887, 1918, 2081, 2085, 2109, 2112],
     [2143, 2174, 1572, 1579, 1581, 1582, 1584, 1593],
     [1601, 1626, 1633, 1658, 1828, 1835, 1837, 1838],
     [1840, 1849, 1857, 1882, 1889, 1914, 2084, 2091],
     [2093, 2094, 2096, 2105, 2113, 2138, 2145, 2170],
     [1584, 1593, 1601, 1606, 1633, 1638, 1840, 1849],
     [1857, 1862, 1889, 1894, 2096, 2105, 2113, 2118],
     [2145, 2150, 1584, 1593, 1601, 1606, 1633, 1638],
     [1840, 1849, 1857, 1862, 1889, 1894, 2096, 2105],
     [2113, 2118, 2145, 2150, 1584, 1585, 1586, 1627],
     [1840, 1841, 1842, 1883, 2096, 2097, 2098, 2139],
     [1587, 1593, 1601, 1626, 1633, 1658, 1843, 1849],
     [1857, 1882, 1889, 1914, 2099, 2105, 2113, 2138],
     [2145, 2170, 1581, 1582, 1631, 1837, 1838, 1887],
     [2093, 2094, 2143, 1584, 1593, 1601, 1626, 1633],
     [1658, 1840, 1849, 1857, 1882, 1889, 1914, 2096],
     [2105, 2113, 2138, 2145, 2170, 1581, 1631, 1837],
     [1887, 2093, 2143, 1584, 1593, 1601, 1626, 1633],
     [1658, 1840, 1849, 1857, 1882, 1889, 1914, 2096],
     [2105, 2113, 2138, 2145, 2170, 1581, 1582, 1631],
     [1837, 1838, 1887, 2093, 2094, 2143, 1584, 1593],
     [1601, 1626, 1633, 1658, 1840, 1849, 1857, 1882],
     [1889, 1914, 2096, 2105, 2113, 2138, 2145, 2170],
     [1584, 1593, 1601, 1626, 1633, 1658, 1840, 1849],
     [1857, 1882, 1889, 1914, 2096, 2105, 2113, 2138],
     [2145, 2170, 0, 575, 1033, 1037, 1056, 1083],
     [1581, 1582, 1594, 1631, 1837, 1838, 1850, 1887],
     [2093, 2094, 2106, 2143, 1584, 1593, 1601, 1626],
     [1633, 1658, 1840, 1849, 1857, 1882, 1889, 1914],
     [2096, 2105, 2113, 2138, 2145, 2170, 1581, 1631],
     [1837, 1887, 2093, 2143, 1584, 1593, 1601, 1626],
     [1633, 1658, 1840, 1849, 1857, 1882, 1889, 1914],
     [2096, 2105, 2113, 2138, 2145, 2170, 0, 575],
     [1033, 1037, 1056, 1083, 1594, 1850, 2106, 1584],
     [1593, 1601, 1626, 1633, 1658, 1840, 1849, 1857],
     [1882, 1889, 1914, 2096, 2105, 2113, 2138, 2145],
     [2170, 1584, 1590, 1840, 1846, 2096, 2102, 1585],
     [1589, 1591, 1593, 1841, 1845, 1847, 1849, 2097],
     [2101, 2103, 2105, 1584, 1840, 2096, 1585, 1593],
     [1841, 1849, 2097, 2105, 1584, 1840, 2096, 1585],
     [1593, 1841, 1849, 2097, 2105, 1585, 1593, 1841],
     [1849, 2097, 2105, 0, 575, 1033, 1037, 1056],
     [1083, 0, 575, 1033, 1037, 1056, 1083, 1584],
     [1593, 1840, 1849, 2096, 2105, 0, 575, 1033],
     [1037, 1056, 1083, 1584, 1593, 1840, 1849, 2096],
     [2105, 0, 575, 1033, 1037, 1056, 1083, 1584],
     [1593, 1840, 1849, 2096, 2105, 0, 575, 1033],
     [1037, 1056, 1083, 1584, 1593, 1840, 1849, 2096],
     [2105, 0, 575, 1033, 1037, 1056, 1083, 1589],
     [1845, 2101, 1584, 1588, 1590, 1593, 1840, 1844],
     [1846, 1849, 2096, 2100, 2102, 2105, 0, 575],
     [1033, 1037, 1056, 1083, 1589, 1845, 2101, 1584],
     [1588, 1590, 1593, 1840, 1844, 1846, 1849, 2096],
     [2100, 2102, 2105, 0, 575, 1033, 1037, 1056],
     [1083, 1587, 1843, 2099, 1584, 1586, 1588, 1593],
     [1840, 1842, 1844, 1849, 2096, 2098, 2100, 2105],
     [0, 575, 1033, 1037, 1056, 1083, 1584, 1589],
     [1840, 1845, 2096, 2101, 1584, 1585, 1586, 1840],
     [1841, 1842, 2096, 2097, 2098, 1587, 1593, 1601],
     [1626, 1633, 1658, 1843, 1849, 1857, 1882, 1889],
     [1914, 2099, 2105, 2113, 2138, 2145, 2170, 1581],
     [1582, 1631, 1837, 1838, 1887, 2093, 2094, 2143],
     [1584, 1593, 1601, 1626, 1633, 1658, 1840, 1849],
     [1857, 1882, 1889, 1914, 2096, 2105, 2113, 2138],
     [2145, 2170, 1584, 1585, 1586, 1840, 1841, 1842],
     [2096, 2097, 2098, 1587, 1593, 1601, 1626, 1633],
     [1658, 1843, 1849, 1857, 1882, 1889, 1914, 2099],
     [2105, 2113, 2138, 2145, 2170, 1581, 1582, 1631],
     [1837, 1838, 1887, 2093, 2094, 2143, 1584, 1593],
     [1601, 1626, 1633, 1658, 1840, 1849, 1857, 1882],
     [1889, 1914, 2096, 2105, 2113, 2138, 2145, 2170],
     [1584, 1585, 1586, 1840, 1841, 1842, 2096, 2097],
     [2098, 1587, 1593, 1601, 1626, 1633, 1658, 1843],
     [1849, 1857, 1882, 1889, 1914, 2099, 2105, 2113],
     [2138, 2145, 2170, 0, 575, 1033, 1037, 1056],
     [1083, 1581, 1582, 1594, 1631, 1837, 1838, 1850],
     [1887, 2093, 2094, 2106, 2143, 1584, 1593, 1601],
     [1626, 1633, 1658, 1840, 1849, 1857, 1882, 1889],
     [1914, 2096, 2105, 2113, 2138, 2145, 2170, 0],
     [575, 1033, 1037, 1056, 1083, 1581, 1582, 1594],
     [1631, 1837, 1838, 1850, 1887, 2093, 2094, 2106],
     [2143, 1584, 1593, 1601, 1626, 1633, 1658, 1840],
     [1849, 1857, 1882, 1889, 1914, 2096, 2105, 2113],
     [2138, 2145, 2170, 0, 575, 1033, 1037, 1056],
     [1083, 1581, 1582, 1594, 1631, 1837, 1838, 1850],
     [1887, 2093, 2094, 2106, 2143, 1584, 1593, 1601],
     [1626, 1633, 1658, 1840, 1849, 1857, 1882, 1889],
     [1914, 2096, 2105, 2113, 2138, 2145, 2170, 0],
     [575, 1033, 1037, 1056, 1083, 1581, 1582, 1589],
     [1594, 1631, 1837, 1838, 1845, 1850, 1887, 2093],
     [2094, 2101, 2106, 2143, 1584, 1588, 1590, 1593],
     [1601, 1626, 1633, 1658, 1840, 1844, 1846, 1849],
     [1857, 1882, 1889, 1914, 2096, 2100, 2102, 2105],
     [2113, 2138, 2145, 2170, 0, 575, 1033, 1037],
     [1056, 1083, 1581, 1582, 1594, 1631, 1837, 1838],
     [1850, 1887, 2093, 2094, 2106, 2143, 1584, 1589],
     [1590, 1593, 1601, 1626, 1633, 1658, 1840, 1845],
     [1846, 1849, 1857, 1882, 1889, 1914, 2096, 2101],
     [2102, 2105, 2113, 2138, 2145, 2170, 1581, 1582],
     [1631, 1837, 1838, 1887, 2093, 2094, 2143, 1584],
     [1593, 1601, 1626, 1633, 1658, 1840, 1849, 1857],
     [1882, 1889, 1914, 2096, 2105, 2113, 2138, 2145],
     [2170, 1581, 1582, 1631, 1837, 1838, 1887, 2093],
     [2094, 2143, 1584, 1593, 1601, 1626, 1633, 1658],
     [1840, 1849, 1857, 1882, 1889, 1914, 2096, 2105],
     [2113, 2138, 2145, 2170, 1581, 1582, 1589, 1631],
     [1837, 1838, 1845, 1887, 2093, 2094, 2101, 2143],
     [1584, 1588, 1590, 1593, 1601, 1626, 1633, 1658],
     [1840, 1844, 1846, 1849, 1857, 1882, 1889, 1914],
     [2096, 2100, 2102, 2105, 2113, 2138, 2145, 2170],
     [1581, 1582, 1631, 1837, 1838, 1887, 2093, 2094],
     [2143, 1584, 1589, 1590, 1593, 1601, 1626, 1633],
     [1658, 1840, 1845, 1846, 1849, 1857, 1882, 1889],
     [1914, 2096, 2101, 2102, 2105, 2113, 2138, 2145],
     [2170, 1581, 1582, 1631, 1837, 1838, 1887, 2093],
     [2094, 2143, 1584, 1593, 1601, 1626, 1633, 1658],
     [1840, 1849, 1857, 1882, 1889, 1914, 2096, 2105],
     [2113, 2138, 2145, 2170, 1581, 1582, 1631, 1837],
     [1838, 1887, 2093, 2094, 2143, 1584, 1593, 1601],
     [1626, 1633, 1658, 1840, 1849, 1857, 1882, 1889],
     [1914, 2096, 2105, 2113, 2138, 2145, 2170, 1581],
     [1582, 1589, 1631, 1837, 1838, 1845, 1887, 2093],
     [2094, 2101, 2143, 1584, 1588, 1590, 1593, 1601],
     [1626, 1633, 1658, 1840, 1844, 1846, 1849, 1857],
     [1882, 1889, 1914, 2096, 2100, 2102, 2105, 2113],
     [2138, 2145, 2170, 1581, 1582, 1631, 1837, 1838],
     [1887, 2093, 2094, 2143, 1584, 1589, 1590, 1593],
     [1601, 1626, 1633, 1658, 1840, 1845, 1846, 1849],
     [1857, 1882, 1889, 1914, 2096, 2101, 2102, 2105],
     [2113, 2138, 2145, 2170, 1581, 1582, 1631, 1837],
     [1838, 1887, 2093, 2094, 2143, 1584, 1593, 1601],
     [1626, 1633, 1658, 1840, 1849, 1857, 1882, 1889],
     [1914, 2096, 2105, 2113, 2138, 2145, 2170, 1581],
     [1582, 1631, 1837, 1838, 1887, 2093, 2094, 2143],
     [1584, 1593, 1601, 1626, 1633, 1658, 1840, 1849],
     [1857, 1882, 1889, 1914, 2096, 2105, 2113, 2138],
     [2145, 2170, 1581, 1582, 1589, 1631, 1837, 1838],
     [1845, 1887, 2093, 2094, 2101, 2143, 1584, 1588],
     [1590, 1593, 1601, 1626, 1633, 1658, 1840, 1844],
     [1846, 1849, 1857, 1882, 1889, 1914, 2096, 2100],
     [2102, 2105, 2113, 2138, 2145, 2170, 1581, 1582],
     [1631, 1837, 1838, 1887, 2093, 2094, 2143, 1584],
     [1589, 1590, 1593, 1601, 1626, 1633, 1658, 1840],
     [1845, 1846, 1849, 1857, 1882, 1889, 1914, 2096],
     [2101, 2102, 2105, 2113, 2138, 2145, 2170, 1594]]"

definition sup_trans_keys_23 :: "int list list" where
  "sup_trans_keys_23 =
    [[1850, 2106, 1584, 1593, 1601, 1606, 1633, 1638],
     [1840, 1849, 1857, 1862, 1889, 1894, 2096, 2105],
     [2113, 2118, 2145, 2150, 1594, 1850, 2106, 1584],
     [1593, 1601, 1606, 1633, 1638, 1840, 1849, 1857],
     [1862, 1889, 1894, 2096, 2105, 2113, 2118, 2145],
     [2150, 1594, 1850, 2106, 1584, 1593, 1601, 1606],
     [1633, 1638, 1840, 1849, 1857, 1862, 1889, 1894],
     [2096, 2105, 2113, 2118, 2145, 2150, 1594, 1850],
     [2106, 1584, 1593, 1601, 1606, 1633, 1638, 1840],
     [1849, 1857, 1862, 1889, 1894, 2096, 2105, 2113],
     [2118, 2145, 2150, 1594, 1850, 2106, 1594, 1850],
     [2106, 1584, 1593, 1601, 1606, 1633, 1638, 1840],
     [1849, 1857, 1862, 1889, 1894, 2096, 2105, 2113],
     [2118, 2145, 2150, 1594, 1850, 2106, 1584, 1593],
     [1601, 1606, 1633, 1638, 1840, 1849, 1857, 1862],
     [1889, 1894, 2096, 2105, 2113, 2118, 2145, 2150],
     [1594, 1850, 2106, 1584, 1593, 1601, 1606, 1633],
     [1638, 1840, 1849, 1857, 1862, 1889, 1894, 2096],
     [2105, 2113, 2118, 2145, 2150, 1594, 1850, 2106],
     [1584, 1593, 1601, 1606, 1633, 1638, 1840, 1849],
     [1857, 1862, 1889, 1894, 2096, 2105, 2113, 2118],
     [2145, 2150, 1594, 1850, 2106, 1594, 1850, 2106],
     [1584, 1593, 1601, 1606, 1633, 1638, 1840, 1849],
     [1857, 1862, 1889, 1894, 2096, 2105, 2113, 2118],
     [2145, 2150, 1594, 1850, 2106, 1584, 1593, 1601],
     [1606, 1633, 1638, 1840, 1849, 1857, 1862, 1889],
     [1894, 2096, 2105, 2113, 2118, 2145, 2150, 1594],
     [1850, 2106, 1584, 1593, 1601, 1606, 1633, 1638],
     [1840, 1849, 1857, 1862, 1889, 1894, 2096, 2105],
     [2113, 2118, 2145, 2150, 1594, 1850, 2106, 1584],
     [1593, 1601, 1606, 1633, 1638, 1840, 1849, 1857],
     [1862, 1889, 1894, 2096, 2105, 2113, 2118, 2145],
     [2150, 1594, 1850, 2106, 1594, 1850, 2106, 1584],
     [1593, 1601, 1606, 1633, 1638, 1840, 1849, 1857],
     [1862, 1889, 1894, 2096, 2105, 2113, 2118, 2145],
     [2150, 1594, 1850, 2106, 1584, 1593, 1601, 1606],
     [1633, 1638, 1840, 1849, 1857, 1862, 1889, 1894],
     [2096, 2105, 2113, 2118, 2145, 2150, 1594, 1850],
     [2106, 1584, 1593, 1601, 1606, 1633, 1638, 1840],
     [1849, 1857, 1862, 1889, 1894, 2096, 2105, 2113],
     [2118, 2145, 2150, 1594, 1850, 2106, 1584, 1593],
     [1601, 1606, 1633, 1638, 1840, 1849, 1857, 1862],
     [1889, 1894, 2096, 2105, 2113, 2118, 2145, 2150],
     [1594, 1850, 2106, 1594, 1850, 2106, 1584, 1593],
     [1601, 1606, 1633, 1638, 1840, 1849, 1857, 1862],
     [1889, 1894, 2096, 2105, 2113, 2118, 2145, 2150],
     [1594, 1850, 2106, 1584, 1593, 1601, 1606, 1633],
     [1638, 1840, 1849, 1857, 1862, 1889, 1894, 2096],
     [2105, 2113, 2118, 2145, 2150, 1594, 1850, 2106],
     [1584, 1593, 1601, 1606, 1633, 1638, 1840, 1849],
     [1857, 1862, 1889, 1894, 2096, 2105, 2113, 2118],
     [2145, 2150, 1594, 1850, 2106, 1584, 1593, 1601],
     [1606, 1633, 1638, 1840, 1849, 1857, 1862, 1889],
     [1894, 2096, 2105, 2113, 2118, 2145, 2150, 1594],
     [1850, 2106, 1594, 1850, 2106, 1584, 1593, 1601],
     [1606, 1633, 1638, 1840, 1849, 1857, 1862, 1889],
     [1894, 2096, 2105, 2113, 2118, 2145, 2150, 1594],
     [1850, 2106, 1584, 1593, 1601, 1606, 1633, 1638],
     [1840, 1849, 1857, 1862, 1889, 1894, 2096, 2105],
     [2113, 2118, 2145, 2150, 1594, 1850, 2106, 1584],
     [1593, 1601, 1606, 1633, 1638, 1840, 1849, 1857],
     [1862, 1889, 1894, 2096, 2105, 2113, 2118, 2145],
     [2150, 1594, 1850, 2106, 1584, 1593, 1601, 1606],
     [1633, 1638, 1840, 1849, 1857, 1862, 1889, 1894],
     [2096, 2105, 2113, 2118, 2145, 2150, 1594, 1850],
     [2106, 1584, 1585, 1586, 1594, 1840, 1841, 1842],
     [1850, 2096, 2097, 2098, 2106, 1587, 1593, 1601],
     [1606, 1633, 1638, 1843, 1849, 1857, 1862, 1889],
     [1894, 2099, 2105, 2113, 2118, 2145, 2150, 1582],
     [1594, 1838, 1850, 2094, 2106, 1584, 1593, 1601],
     [1606, 1633, 1638, 1840, 1849, 1857, 1862, 1889],
     [1894, 2096, 2105, 2113, 2118, 2145, 2150, 1584],
     [1585, 1586, 1840, 1841, 1842, 2096, 2097, 2098],
     [1587, 1593, 1843, 1849, 2099, 2105, 1582, 1838],
     [2094, 1584, 1585, 1586, 1840, 1841, 1842, 2096],
     [2097, 2098, 1587, 1593, 1843, 1849, 2099, 2105],
     [1582, 1838, 2094, 1584, 1585, 1586, 1840, 1841],
     [1842, 2096, 2097, 2098, 1587, 1593, 1843, 1849],
     [2099, 2105, 1629, 1885, 2141, 0, 575, 1033],
     [1037, 1056, 1083, 1594, 1850, 2106, 1629, 1885],
     [2141, 1584, 1593, 1840, 1849, 2096, 2105, 1629],
     [1885, 2141, 1584, 1593, 1840, 1849, 2096, 2105],
     [1589, 1629, 1845, 1885, 2101, 2141, 1584, 1588],
     [1590, 1593, 1840, 1844, 1846, 1849, 2096, 2100],
     [2102, 2105, 1629, 1885, 2141, 1584, 1589, 1840],
     [1845, 2096, 2101, 1582, 1838, 2094, 1584, 1593],
     [1840, 1849, 2096, 2105, 1582, 1838, 2094, 1584],
     [1593, 1840, 1849, 2096, 2105, 1582, 1589, 1838],
     [1845, 2094, 2101, 1584, 1588, 1590, 1593, 1840],
     [1844, 1846, 1849, 2096, 2100, 2102, 2105, 1582],
     [1838, 2094, 1584, 1589, 1840, 1845, 2096, 2101],
     [1582, 1838, 2094, 1584, 1593, 1840, 1849, 2096],
     [2105, 1582, 1838, 2094, 1584, 1593, 1840, 1849],
     [2096, 2105, 1582, 1589, 1838, 1845, 2094, 2101],
     [1584, 1588, 1590, 1593, 1840, 1844, 1846, 1849],
     [2096, 2100, 2102, 2105, 1582, 1838, 2094, 1584],
     [1589, 1840, 1845, 2096, 2101, 1594, 1850, 2106],
     [1584, 1593, 1601, 1606, 1633, 1638, 1840, 1849],
     [1857, 1862, 1889, 1894, 2096, 2105, 2113, 2118],
     [2145, 2150, 1594, 1850, 2106, 1584, 1593, 1601],
     [1606, 1633, 1638, 1840, 1849, 1857, 1862, 1889],
     [1894, 2096, 2105, 2113, 2118, 2145, 2150, 1594],
     [1850, 2106, 1594, 1850, 2106, 1584, 1593, 1601],
     [1606, 1633, 1638, 1840, 1849, 1857, 1862, 1889],
     [1894, 2096, 2105, 2113, 2118, 2145, 2150, 1629],
     [1885, 2141, 1584, 1593, 1601, 1606, 1633, 1638],
     [1840, 1849, 1857, 1862, 1889, 1894, 2096, 2105],
     [2113, 2118, 2145, 2150, 1629, 1885, 2141, 1584],
     [1593, 1601, 1606, 1633, 1638, 1840, 1849, 1857],
     [1862, 1889, 1894, 2096, 2105, 2113, 2118, 2145],
     [2150, 1629, 1885, 2141, 1584, 1593, 1601, 1606],
     [1633, 1638, 1840, 1849, 1857, 1862, 1889, 1894],
     [2096, 2105, 2113, 2118, 2145, 2150, 1582, 1594],
     [1838, 1850, 2094, 2106, 1584, 1593, 1601, 1606],
     [1633, 1638, 1840, 1849, 1857, 1862, 1889, 1894],
     [2096, 2105, 2113, 2118, 2145, 2150, 1582, 1594],
     [1838, 1850, 2094, 2106, 1584, 1593, 1601, 1606],
     [1633, 1638, 1840, 1849, 1857, 1862, 1889, 1894],
     [2096, 2105, 2113, 2118, 2145, 2150, 1582, 1594],
     [1838, 1850, 2094, 2106, 1584, 1593, 1601, 1606],
     [1633, 1638, 1840, 1849, 1857, 1862, 1889, 1894],
     [2096, 2105, 2113, 2118, 2145, 2150, 1582, 1589],
     [1594, 1838, 1845, 1850, 2094, 2101, 2106, 1584],
     [1588, 1590, 1593, 1601, 1606, 1633, 1638, 1840],
     [1844, 1846, 1849, 1857, 1862, 1889, 1894, 2096],
     [2100, 2102, 2105, 2113, 2118, 2145, 2150, 1582],
     [1594, 1838, 1850, 2094, 2106, 1584, 1589, 1590],
     [1593, 1601, 1606, 1633, 1638, 1840, 1845, 1846],
     [1849, 1857, 1862, 1889, 1894, 2096, 2101, 2102],
     [2105, 2113, 2118, 2145, 2150, 1582, 1594, 1838],
     [1850, 2094, 2106, 1584, 1593, 1601, 1606, 1633],
     [1638, 1840, 1849, 1857, 1862, 1889, 1894, 2096],
     [2105, 2113, 2118, 2145, 2150, 1582, 1594, 1838],
     [1850, 2094, 2106, 1584, 1593, 1601, 1606, 1633],
     [1638, 1840, 1849, 1857, 1862, 1889, 1894, 2096],
     [2105, 2113, 2118, 2145, 2150, 1629, 1885, 2141],
     [1584, 1593, 1601, 1606, 1633, 1638, 1840, 1849],
     [1857, 1862, 1889, 1894, 2096, 2105, 2113, 2118],
     [2145, 2150, 1594, 1850, 2106, 1584, 1593, 1601],
     [1606, 1633, 1638, 1840, 1849, 1857, 1862, 1889],
     [1894, 2096, 2105, 2113, 2118, 2145, 2150, 1584],
     [1585, 1586, 1629, 1840, 1841, 1842, 1885, 2096],
     [2097, 2098, 2141, 1587, 1593, 1601, 1606, 1633],
     [1638, 1843, 1849, 1857, 1862, 1889, 1894, 2099],
     [2105, 2113, 2118, 2145, 2150, 1582, 1594, 1629],
     [1838, 1850, 1885, 2094, 2106, 2141, 1584, 1593],
     [1601, 1606, 1633, 1638, 1840, 1849, 1857, 1862],
     [1889, 1894, 2096, 2105, 2113, 2118, 2145, 2150],
     [1594, 1629, 1850, 1885, 2106, 2141, 1584, 1593],
     [1601, 1606, 1633, 1638, 1840, 1849, 1857, 1862]]"

definition sup_trans_keys_24 :: "int list list" where
  "sup_trans_keys_24 =
    [[1889, 1894, 2096, 2105, 2113, 2118, 2145, 2150],
     [1594, 1629, 1850, 1885, 2106, 2141, 1584, 1593],
     [1601, 1606, 1633, 1638, 1840, 1849, 1857, 1862],
     [1889, 1894, 2096, 2105, 2113, 2118, 2145, 2150],
     [1594, 1629, 1850, 1885, 2106, 2141, 1584, 1593],
     [1601, 1606, 1633, 1638, 1840, 1849, 1857, 1862],
     [1889, 1894, 2096, 2105, 2113, 2118, 2145, 2150],
     [1582, 1594, 1629, 1838, 1850, 1885, 2094, 2106],
     [2141, 1584, 1593, 1601, 1606, 1633, 1638, 1840],
     [1849, 1857, 1862, 1889, 1894, 2096, 2105, 2113],
     [2118, 2145, 2150, 1582, 1594, 1629, 1838, 1850],
     [1885, 2094, 2106, 2141, 1584, 1593, 1601, 1606],
     [1633, 1638, 1840, 1849, 1857, 1862, 1889, 1894],
     [2096, 2105, 2113, 2118, 2145, 2150, 1582, 1594],
     [1629, 1838, 1850, 1885, 2094, 2106, 2141, 1584],
     [1593, 1601, 1606, 1633, 1638, 1840, 1849, 1857],
     [1862, 1889, 1894, 2096, 2105, 2113, 2118, 2145],
     [2150, 1582, 1589, 1594, 1629, 1838, 1845, 1850],
     [1885, 2094, 2101, 2106, 2141, 1584, 1588, 1590],
     [1593, 1601, 1606, 1633, 1638, 1840, 1844, 1846],
     [1849, 1857, 1862, 1889, 1894, 2096, 2100, 2102],
     [2105, 2113, 2118, 2145, 2150, 1582, 1594, 1629],
     [1838, 1850, 1885, 2094, 2106, 2141, 1584, 1589],
     [1590, 1593, 1601, 1606, 1633, 1638, 1840, 1845],
     [1846, 1849, 1857, 1862, 1889, 1894, 2096, 2101],
     [2102, 2105, 2113, 2118, 2145, 2150, 1582, 1594],
     [1629, 1838, 1850, 1885, 2094, 2106, 2141, 1584],
     [1593, 1601, 1606, 1633, 1638, 1840, 1849, 1857],
     [1862, 1889, 1894, 2096, 2105, 2113, 2118, 2145],
     [2150, 1582, 1594, 1629, 1838, 1850, 1885, 2094],
     [2106, 2141, 1584, 1593, 1601, 1606, 1633, 1638],
     [1840, 1849, 1857, 1862, 1889, 1894, 2096, 2105],
     [2113, 2118, 2145, 2150, 1594, 1629, 1850, 1885],
     [2106, 2141, 1584, 1593, 1601, 1606, 1633, 1638],
     [1840, 1849, 1857, 1862, 1889, 1894, 2096, 2105],
     [2113, 2118, 2145, 2150, 1584, 1585, 1586, 1629],
     [1840, 1841, 1842, 1885, 2096, 2097, 2098, 2141],
     [1587, 1593, 1601, 1606, 1633, 1638, 1843, 1849],
     [1857, 1862, 1889, 1894, 2099, 2105, 2113, 2118],
     [2145, 2150, 1582, 1594, 1629, 1838, 1850, 1885],
     [2094, 2106, 2141, 1584, 1593, 1601, 1606, 1633],
     [1638, 1840, 1849, 1857, 1862, 1889, 1894, 2096],
     [2105, 2113, 2118, 2145, 2150, 1594, 1629, 1850],
     [1885, 2106, 2141, 1584, 1593, 1601, 1606, 1633],
     [1638, 1840, 1849, 1857, 1862, 1889, 1894, 2096],
     [2105, 2113, 2118, 2145, 2150, 1594, 1629, 1850],
     [1885, 2106, 2141, 1584, 1593, 1601, 1606, 1633],
     [1638, 1840, 1849, 1857, 1862, 1889, 1894, 2096],
     [2105, 2113, 2118, 2145, 2150, 1594, 1629, 1850],
     [1885, 2106, 2141, 1584, 1585, 1586, 1840, 1841],
     [1842, 2096, 2097, 2098, 1587, 1593, 1601, 1606],
     [1633, 1638, 1843, 1849, 1857, 1862, 1889, 1894],
     [2099, 2105, 2113, 2118, 2145, 2150, 1582, 1594],
     [1629, 1838, 1850, 1885, 2094, 2106, 2141, 1584],
     [1593, 1601, 1606, 1633, 1638, 1840, 1849, 1857],
     [1862, 1889, 1894, 2096, 2105, 2113, 2118, 2145],
     [2150, 1582, 1594, 1629, 1838, 1850, 1885, 2094],
     [2106, 2141, 1584, 1593, 1601, 1606, 1633, 1638],
     [1840, 1849, 1857, 1862, 1889, 1894, 2096, 2105],
     [2113, 2118, 2145, 2150, 1582, 1594, 1629, 1838],
     [1850, 1885, 2094, 2106, 2141, 1584, 1593, 1601],
     [1606, 1633, 1638, 1840, 1849, 1857, 1862, 1889],
     [1894, 2096, 2105, 2113, 2118, 2145, 2150, 1582],
     [1589, 1594, 1629, 1838, 1845, 1850, 1885, 2094],
     [2101, 2106, 2141, 1584, 1588, 1590, 1593, 1601],
     [1606, 1633, 1638, 1840, 1844, 1846, 1849, 1857],
     [1862, 1889, 1894, 2096, 2100, 2102, 2105, 2113],
     [2118, 2145, 2150, 1582, 1594, 1629, 1838, 1850],
     [1885, 2094, 2106, 2141, 1584, 1589, 1590, 1593],
     [1601, 1606, 1633, 1638, 1840, 1845, 1846, 1849],
     [1857, 1862, 1889, 1894, 2096, 2101, 2102, 2105],
     [2113, 2118, 2145, 2150, 1582, 1594, 1629, 1838],
     [1850, 1885, 2094, 2106, 2141, 1584, 1593, 1601],
     [1606, 1633, 1638, 1840, 1849, 1857, 1862, 1889],
     [1894, 2096, 2105, 2113, 2118, 2145, 2150, 1582],
     [1594, 1629, 1838, 1850, 1885, 2094, 2106, 2141],
     [1584, 1593, 1601, 1606, 1633, 1638, 1840, 1849],
     [1857, 1862, 1889, 1894, 2096, 2105, 2113, 2118],
     [2145, 2150, 1594, 1629, 1850, 1885, 2106, 2141],
     [1584, 1593, 1601, 1606, 1633, 1638, 1840, 1849],
     [1857, 1862, 1889, 1894, 2096, 2105, 2113, 2118],
     [2145, 2150, 1584, 1585, 1586, 1629, 1840, 1841],
     [1842, 1885, 2096, 2097, 2098, 2141, 1587, 1593],
     [1601, 1606, 1633, 1638, 1843, 1849, 1857, 1862],
     [1889, 1894, 2099, 2105, 2113, 2118, 2145, 2150],
     [1582, 1594, 1629, 1838, 1850, 1885, 2094, 2106],
     [2141, 1584, 1593, 1601, 1606, 1633, 1638, 1840],
     [1849, 1857, 1862, 1889, 1894, 2096, 2105, 2113],
     [2118, 2145, 2150, 1594, 1629, 1850, 1885, 2106],
     [2141, 1584, 1593, 1601, 1606, 1633, 1638, 1840],
     [1849, 1857, 1862, 1889, 1894, 2096, 2105, 2113],
     [2118, 2145, 2150, 1594, 1629, 1850, 1885, 2106],
     [2141, 1584, 1593, 1601, 1606, 1633, 1638, 1840],
     [1849, 1857, 1862, 1889, 1894, 2096, 2105, 2113],
     [2118, 2145, 2150, 1594, 1629, 1850, 1885, 2106],
     [2141, 1584, 1585, 1586, 1840, 1841, 1842, 2096],
     [2097, 2098, 1587, 1593, 1601, 1606, 1633, 1638],
     [1843, 1849, 1857, 1862, 1889, 1894, 2099, 2105],
     [2113, 2118, 2145, 2150, 1582, 1594, 1629, 1838],
     [1850, 1885, 2094, 2106, 2141, 1584, 1593, 1601],
     [1606, 1633, 1638, 1840, 1849, 1857, 1862, 1889],
     [1894, 2096, 2105, 2113, 2118, 2145, 2150, 1582],
     [1594, 1629, 1838, 1850, 1885, 2094, 2106, 2141],
     [1584, 1593, 1601, 1606, 1633, 1638, 1840, 1849],
     [1857, 1862, 1889, 1894, 2096, 2105, 2113, 2118],
     [2145, 2150, 1582, 1594, 1629, 1838, 1850, 1885],
     [2094, 2106, 2141, 1584, 1593, 1601, 1606, 1633],
     [1638, 1840, 1849, 1857, 1862, 1889, 1894, 2096],
     [2105, 2113, 2118, 2145, 2150, 1582, 1589, 1594],
     [1629, 1838, 1845, 1850, 1885, 2094, 2101, 2106],
     [2141, 1584, 1588, 1590, 1593, 1601, 1606, 1633],
     [1638, 1840, 1844, 1846, 1849, 1857, 1862, 1889],
     [1894, 2096, 2100, 2102, 2105, 2113, 2118, 2145],
     [2150, 1582, 1594, 1629, 1838, 1850, 1885, 2094],
     [2106, 2141, 1584, 1589, 1590, 1593, 1601, 1606],
     [1633, 1638, 1840, 1845, 1846, 1849, 1857, 1862],
     [1889, 1894, 2096, 2101, 2102, 2105, 2113, 2118],
     [2145, 2150, 1582, 1594, 1629, 1838, 1850, 1885],
     [2094, 2106, 2141, 1584, 1593, 1601, 1606, 1633],
     [1638, 1840, 1849, 1857, 1862, 1889, 1894, 2096],
     [2105, 2113, 2118, 2145, 2150, 1582, 1594, 1629],
     [1838, 1850, 1885, 2094, 2106, 2141, 1584, 1593],
     [1601, 1606, 1633, 1638, 1840, 1849, 1857, 1862],
     [1889, 1894, 2096, 2105, 2113, 2118, 2145, 2150],
     [1594, 1629, 1850, 1885, 2106, 2141, 1584, 1593],
     [1601, 1606, 1633, 1638, 1840, 1849, 1857, 1862],
     [1889, 1894, 2096, 2105, 2113, 2118, 2145, 2150],
     [1584, 1585, 1586, 1629, 1840, 1841, 1842, 1885],
     [2096, 2097, 2098, 2141, 1587, 1593, 1601, 1606],
     [1633, 1638, 1843, 1849, 1857, 1862, 1889, 1894],
     [2099, 2105, 2113, 2118, 2145, 2150, 1582, 1594],
     [1629, 1838, 1850, 1885, 2094, 2106, 2141, 1584],
     [1593, 1601, 1606, 1633, 1638, 1840, 1849, 1857],
     [1862, 1889, 1894, 2096, 2105, 2113, 2118, 2145],
     [2150, 1594, 1629, 1850, 1885, 2106, 2141, 1584],
     [1593, 1601, 1606, 1633, 1638, 1840, 1849, 1857],
     [1862, 1889, 1894, 2096, 2105, 2113, 2118, 2145],
     [2150, 1594, 1629, 1850, 1885, 2106, 2141, 1584],
     [1593, 1601, 1606, 1633, 1638, 1840, 1849, 1857],
     [1862, 1889, 1894, 2096, 2105, 2113, 2118, 2145],
     [2150, 1594, 1629, 1850, 1885, 2106, 2141, 1584],
     [1585, 1586, 1840, 1841, 1842, 2096, 2097, 2098],
     [1587, 1593, 1601, 1606, 1633, 1638, 1843, 1849],
     [1857, 1862, 1889, 1894, 2099, 2105, 2113, 2118],
     [2145, 2150, 1582, 1594, 1629, 1838, 1850, 1885],
     [2094, 2106, 2141, 1584, 1593, 1601, 1606, 1633],
     [1638, 1840, 1849, 1857, 1862, 1889, 1894, 2096],
     [2105, 2113, 2118, 2145, 2150, 1582, 1594, 1629],
     [1838, 1850, 1885, 2094, 2106, 2141, 1584, 1593],
     [1601, 1606, 1633, 1638, 1840, 1849, 1857, 1862]]"

definition sup_trans_keys_25 :: "int list list" where
  "sup_trans_keys_25 =
    [[1889, 1894, 2096, 2105, 2113, 2118, 2145, 2150],
     [1582, 1594, 1629, 1838, 1850, 1885, 2094, 2106],
     [2141, 1584, 1593, 1601, 1606, 1633, 1638, 1840],
     [1849, 1857, 1862, 1889, 1894, 2096, 2105, 2113],
     [2118, 2145, 2150, 1582, 1589, 1594, 1629, 1838],
     [1845, 1850, 1885, 2094, 2101, 2106, 2141, 1584],
     [1588, 1590, 1593, 1601, 1606, 1633, 1638, 1840],
     [1844, 1846, 1849, 1857, 1862, 1889, 1894, 2096],
     [2100, 2102, 2105, 2113, 2118, 2145, 2150, 1582],
     [1594, 1629, 1838, 1850, 1885, 2094, 2106, 2141],
     [1584, 1589, 1590, 1593, 1601, 1606, 1633, 1638],
     [1840, 1845, 1846, 1849, 1857, 1862, 1889, 1894],
     [2096, 2101, 2102, 2105, 2113, 2118, 2145, 2150],
     [1582, 1594, 1629, 1838, 1850, 1885, 2094, 2106],
     [2141, 1584, 1593, 1601, 1606, 1633, 1638, 1840],
     [1849, 1857, 1862, 1889, 1894, 2096, 2105, 2113],
     [2118, 2145, 2150, 1582, 1594, 1629, 1838, 1850],
     [1885, 2094, 2106, 2141, 1584, 1593, 1601, 1606],
     [1633, 1638, 1840, 1849, 1857, 1862, 1889, 1894],
     [2096, 2105, 2113, 2118, 2145, 2150, 1594, 1629],
     [1850, 1885, 2106, 2141, 1584, 1593, 1601, 1606],
     [1633, 1638, 1840, 1849, 1857, 1862, 1889, 1894],
     [2096, 2105, 2113, 2118, 2145, 2150, 1584, 1585],
     [1586, 1629, 1840, 1841, 1842, 1885, 2096, 2097],
     [2098, 2141, 1587, 1593, 1601, 1606, 1633, 1638],
     [1843, 1849, 1857, 1862, 1889, 1894, 2099, 2105],
     [2113, 2118, 2145, 2150, 1582, 1594, 1629, 1838],
     [1850, 1885, 2094, 2106, 2141, 1584, 1593, 1601],
     [1606, 1633, 1638, 1840, 1849, 1857, 1862, 1889],
     [1894, 2096, 2105, 2113, 2118, 2145, 2150, 1594],
     [1629, 1850, 1885, 2106, 2141, 1584, 1593, 1601],
     [1606, 1633, 1638, 1840, 1849, 1857, 1862, 1889],
     [1894, 2096, 2105, 2113, 2118, 2145, 2150, 1594],
     [1629, 1850, 1885, 2106, 2141, 1584, 1593, 1601],
     [1606, 1633, 1638, 1840, 1849, 1857, 1862, 1889],
     [1894, 2096, 2105, 2113, 2118, 2145, 2150, 1594],
     [1629, 1850, 1885, 2106, 2141, 1584, 1585, 1586],
     [1840, 1841, 1842, 2096, 2097, 2098, 1587, 1593],
     [1601, 1606, 1633, 1638, 1843, 1849, 1857, 1862],
     [1889, 1894, 2099, 2105, 2113, 2118, 2145, 2150],
     [1582, 1594, 1629, 1838, 1850, 1885, 2094, 2106],
     [2141, 1584, 1593, 1601, 1606, 1633, 1638, 1840],
     [1849, 1857, 1862, 1889, 1894, 2096, 2105, 2113],
     [2118, 2145, 2150, 1582, 1594, 1629, 1838, 1850],
     [1885, 2094, 2106, 2141, 1584, 1593, 1601, 1606],
     [1633, 1638, 1840, 1849, 1857, 1862, 1889, 1894],
     [2096, 2105, 2113, 2118, 2145, 2150, 1582, 1594],
     [1629, 1838, 1850, 1885, 2094, 2106, 2141, 1584],
     [1593, 1601, 1606, 1633, 1638, 1840, 1849, 1857],
     [1862, 1889, 1894, 2096, 2105, 2113, 2118, 2145],
     [2150, 1582, 1589, 1594, 1629, 1838, 1845, 1850],
     [1885, 2094, 2101, 2106, 2141, 1584, 1588, 1590],
     [1593, 1601, 1606, 1633, 1638, 1840, 1844, 1846],
     [1849, 1857, 1862, 1889, 1894, 2096, 2100, 2102],
     [2105, 2113, 2118, 2145, 2150, 1582, 1594, 1629],
     [1838, 1850, 1885, 2094, 2106, 2141, 1584, 1589],
     [1590, 1593, 1601, 1606, 1633, 1638, 1840, 1845],
     [1846, 1849, 1857, 1862, 1889, 1894, 2096, 2101],
     [2102, 2105, 2113, 2118, 2145, 2150, 1582, 1594],
     [1629, 1838, 1850, 1885, 2094, 2106, 2141, 1584],
     [1593, 1601, 1606, 1633, 1638, 1840, 1849, 1857],
     [1862, 1889, 1894, 2096, 2105, 2113, 2118, 2145],
     [2150, 1582, 1594, 1629, 1838, 1850, 1885, 2094],
     [2106, 2141, 1584, 1593, 1601, 1606, 1633, 1638],
     [1840, 1849, 1857, 1862, 1889, 1894, 2096, 2105],
     [2113, 2118, 2145, 2150, 1594, 1629, 1850, 1885],
     [2106, 2141, 1584, 1593, 1601, 1606, 1633, 1638],
     [1840, 1849, 1857, 1862, 1889, 1894, 2096, 2105],
     [2113, 2118, 2145, 2150, 1594, 1850, 2106, 1584],
     [1585, 1586, 1629, 1840, 1841, 1842, 1885, 2096],
     [2097, 2098, 2141, 1587, 1593, 1601, 1606, 1633],
     [1638, 1843, 1849, 1857, 1862, 1889, 1894, 2099],
     [2105, 2113, 2118, 2145, 2150, 1582, 1594, 1629],
     [1838, 1850, 1885, 2094, 2106, 2141, 1584, 1593],
     [1601, 1606, 1633, 1638, 1840, 1849, 1857, 1862],
     [1889, 1894, 2096, 2105, 2113, 2118, 2145, 2150],
     [1594, 1629, 1850, 1885, 2106, 2141, 1584, 1593],
     [1601, 1606, 1633, 1638, 1840, 1849, 1857, 1862],
     [1889, 1894, 2096, 2105, 2113, 2118, 2145, 2150],
     [1594, 1629, 1850, 1885, 2106, 2141, 1584, 1593],
     [1601, 1606, 1633, 1638, 1840, 1849, 1857, 1862],
     [1889, 1894, 2096, 2105, 2113, 2118, 2145, 2150],
     [1594, 1629, 1850, 1885, 2106, 2141, 1584, 1585],
     [1586, 1840, 1841, 1842, 2096, 2097, 2098, 1587],
     [1593, 1601, 1606, 1633, 1638, 1843, 1849, 1857],
     [1862, 1889, 1894, 2099, 2105, 2113, 2118, 2145],
     [2150, 1582, 1594, 1629, 1838, 1850, 1885, 2094],
     [2106, 2141, 1584, 1593, 1601, 1606, 1633, 1638],
     [1840, 1849, 1857, 1862, 1889, 1894, 2096, 2105],
     [2113, 2118, 2145, 2150, 1582, 1594, 1629, 1838],
     [1850, 1885, 2094, 2106, 2141, 1584, 1593, 1601],
     [1606, 1633, 1638, 1840, 1849, 1857, 1862, 1889],
     [1894, 2096, 2105, 2113, 2118, 2145, 2150, 1582],
     [1594, 1629, 1838, 1850, 1885, 2094, 2106, 2141],
     [1584, 1593, 1601, 1606, 1633, 1638, 1840, 1849],
     [1857, 1862, 1889, 1894, 2096, 2105, 2113, 2118],
     [2145, 2150, 1582, 1589, 1594, 1629, 1838, 1845],
     [1850, 1885, 2094, 2101, 2106, 2141, 1584, 1588],
     [1590, 1593, 1601, 1606, 1633, 1638, 1840, 1844],
     [1846, 1849, 1857, 1862, 1889, 1894, 2096, 2100],
     [2102, 2105, 2113, 2118, 2145, 2150, 1582, 1594],
     [1629, 1838, 1850, 1885, 2094, 2106, 2141, 1584],
     [1589, 1590, 1593, 1601, 1606, 1633, 1638, 1840],
     [1845, 1846, 1849, 1857, 1862, 1889, 1894, 2096],
     [2101, 2102, 2105, 2113, 2118, 2145, 2150, 1582],
     [1594, 1629, 1838, 1850, 1885, 2094, 2106, 2141],
     [1584, 1593, 1601, 1606, 1633, 1638, 1840, 1849],
     [1857, 1862, 1889, 1894, 2096, 2105, 2113, 2118],
     [2145, 2150, 1582, 1594, 1629, 1838, 1850, 1885],
     [2094, 2106, 2141, 1584, 1593, 1601, 1606, 1633],
     [1638, 1840, 1849, 1857, 1862, 1889, 1894, 2096],
     [2105, 2113, 2118, 2145, 2150, 1594, 1629, 1850],
     [1885, 2106, 2141, 1584, 1593, 1601, 1606, 1633],
     [1638, 1840, 1849, 1857, 1862, 1889, 1894, 2096],
     [2105, 2113, 2118, 2145, 2150, 1584, 1593, 1601],
     [1606, 1633, 1638, 1840, 1849, 1857, 1862, 1889],
     [1894, 2096, 2105, 2113, 2118, 2145, 2150, 1584],
     [1593, 1601, 1606, 1633, 1638, 1840, 1849, 1857],
     [1862, 1889, 1894, 2096, 2105, 2113, 2118, 2145],
     [2150, 0, 556, 575, 1033, 1037, 1056, 1569],
     [1573, 1583, 1597, 1600, 1631, 1662, 1825, 1829],
     [1839, 1850, 1851, 1853, 1856, 1887, 1918, 2081],
     [2085, 2095, 2106, 2107, 2109, 2112, 2143, 2174],
     [1572, 1579, 1581, 1593, 1594, 1595, 1601, 1626],
     [1633, 1658, 1828, 1835, 1837, 1849, 1857, 1882],
     [1889, 1914, 2084, 2091, 2093, 2105, 2113, 2138],
     [2145, 2170, 1584, 1593, 1601, 1606, 1633, 1638],
     [1840, 1849, 1857, 1862, 1889, 1894, 2096, 2105],
     [2113, 2118, 2145, 2150, 1584, 1593, 1601, 1606],
     [1633, 1638, 1840, 1849, 1857, 1862, 1889, 1894],
     [2096, 2105, 2113, 2118, 2145, 2150, 0, 556],
     [575, 1033, 1037, 1056, 1569, 1573, 1597, 1631],
     [1662, 1825, 1829, 1851, 1853, 1887, 1918, 2081],
     [2085, 2107, 2109, 2143, 2174, 1572, 1579, 1581],
     [1595, 1600, 1626, 1633, 1658, 1828, 1835, 1837],
     [1850, 1856, 1882, 1889, 1914, 2084, 2091, 2093],
     [2106, 2112, 2138, 2145, 2170, 1584, 1593, 1601],
     [1606, 1633, 1638, 1840, 1849, 1857, 1862, 1889],
     [1894, 2096, 2105, 2113, 2118, 2145, 2150, 1584],
     [1593, 1601, 1606, 1633, 1638, 1840, 1849, 1857],
     [1862, 1889, 1894, 2096, 2105, 2113, 2118, 2145],
     [2150, 0, 548, 550, 556, 559, 573, 1033],
     [1037, 1056, 1120, 1569, 1573, 1575, 1631, 1662],
     [1825, 1829, 1831, 1887, 1918, 2081, 2085, 2087],
     [2143, 2174, 552, 553, 570, 571, 575, 576],
     [1578, 1579, 1581, 1582, 1584, 1593, 1601, 1626],
     [1633, 1658, 1834, 1835, 1837, 1838, 1840, 1849],
     [1857, 1882, 1889, 1914, 2090, 2091, 2093, 2094],
     [2096, 2105, 2113, 2138, 2145, 2170, 0, 548],
     [550, 556, 559, 570, 1033, 1037, 1056, 1120]]"

definition sup_trans_keys_26 :: "int list list" where
  "sup_trans_keys_26 =
    [[1569, 1573, 1575, 1595, 1597, 1631, 1662, 1825],
     [1829, 1831, 1851, 1853, 1887, 1918, 2081, 2085],
     [2087, 2107, 2109, 2143, 2174, 552, 553, 575],
     [576, 1578, 1579, 1581, 1582, 1584, 1593, 1601],
     [1626, 1633, 1658, 1834, 1835, 1837, 1838, 1840],
     [1849, 1857, 1882, 1889, 1914, 2090, 2091, 2093],
     [2094, 2096, 2105, 2113, 2138, 2145, 2170, 0],
     [1033, 1037, 1056, 1057, 1061, 1063, 1083, 1085],
     [1150, 1066, 1067, 1069, 1070, 1095, 1114, 1119],
     [1120, 1127, 1146, 1584, 1593, 1601, 1606, 1633],
     [1638, 1840, 1849, 1857, 1862, 1889, 1894, 2096],
     [2105, 2113, 2118, 2145, 2150, 0, 1033, 1037],
     [1056, 1057, 1061, 1063, 1083, 1085, 1150, 1066],
     [1067, 1069, 1070, 1095, 1114, 1119, 1120, 1127],
     [1146, 1584, 1593, 1601, 1606, 1633, 1638, 1840],
     [1849, 1857, 1862, 1889, 1894, 2096, 2105, 2113],
     [2118, 2145, 2150, 0, 548, 550, 556, 559],
     [573, 1033, 1037, 1056, 1058, 1115, 1120, 1569],
     [1573, 1575, 1631, 1662, 1825, 1829, 1831, 1887],
     [1918, 2081, 2085, 2087, 2143, 2174, 552, 553],
     [570, 571, 575, 576, 1578, 1579, 1581, 1582],
     [1584, 1593, 1601, 1626, 1633, 1658, 1834, 1835],
     [1837, 1838, 1840, 1849, 1857, 1882, 1889, 1914],
     [2090, 2091, 2093, 2094, 2096, 2105, 2113, 2138],
     [2145, 2170, 0, 548, 550, 556, 559, 570],
     [573, 1033, 1037, 1056, 1120, 1569, 1573, 1575],
     [1595, 1631, 1662, 1825, 1829, 1831, 1851, 1887],
     [1918, 2081, 2085, 2087, 2107, 2143, 2174, 552],
     [553, 575, 576, 1578, 1579, 1581, 1582, 1584],
     [1593, 1601, 1626, 1633, 1658, 1834, 1835, 1837],
     [1838, 1840, 1849, 1857, 1882, 1889, 1914, 2090],
     [2091, 2093, 2094, 2096, 2105, 2113, 2138, 2145],
     [2170, 0, 1033, 1037, 1056, 1057, 1061, 1063],
     [1083, 1150, 1066, 1067, 1069, 1070, 1095, 1114],
     [1119, 1120, 1127, 1146, 1584, 1593, 1601, 1606],
     [1633, 1638, 1840, 1849, 1857, 1862, 1889, 1894],
     [2096, 2105, 2113, 2118, 2145, 2150, 0, 1033],
     [1037, 1056, 1057, 1061, 1063, 1083, 1150, 1066],
     [1067, 1069, 1070, 1095, 1114, 1119, 1120, 1127],
     [1146, 1584, 1593, 1601, 1606, 1633, 1638, 1840],
     [1849, 1857, 1862, 1889, 1894, 2096, 2105, 2113],
     [2118, 2145, 2150, 0, 556, 575, 1033, 1037],
     [1056, 1569, 1573, 1597, 1627, 1631, 1662, 1825],
     [1829, 1851, 1853, 1883, 1887, 1918, 2081, 2085],
     [2107, 2109, 2139, 2143, 2174, 1572, 1579, 1581],
     [1595, 1600, 1626, 1633, 1658, 1828, 1835, 1837],
     [1850, 1856, 1882, 1889, 1914, 2084, 2091, 2093],
     [2106, 2112, 2138, 2145, 2170, 0, 547, 548],
     [550, 556, 559, 570, 571, 573, 575, 576],
     [1033, 1037, 1056, 1120, 1569, 1573, 1575, 1631],
     [1662, 1825, 1829, 1831, 1887, 1918, 2081, 2085],
     [2087, 2143, 2174, 552, 553, 1578, 1579, 1581],
     [1582, 1584, 1593, 1601, 1626, 1633, 1658, 1834],
     [1835, 1837, 1838, 1840, 1849, 1857, 1882, 1889],
     [1914, 2090, 2091, 2093, 2094, 2096, 2105, 2113],
     [2138, 2145, 2170, 0, 547, 548, 550, 556],
     [559, 570, 575, 576, 1033, 1037, 1056, 1120],
     [1569, 1573, 1575, 1595, 1597, 1631, 1662, 1825],
     [1829, 1831, 1851, 1853, 1887, 1918, 2081, 2085],
     [2087, 2107, 2109, 2143, 2174, 552, 553, 1578],
     [1579, 1581, 1582, 1584, 1593, 1601, 1626, 1633],
     [1658, 1834, 1835, 1837, 1838, 1840, 1849, 1857],
     [1882, 1889, 1914, 2090, 2091, 2093, 2094, 2096],
     [2105, 2113, 2138, 2145, 2170, 0, 1033, 1037],
     [1056, 1057, 1061, 1063, 1083, 1085, 1150, 1066],
     [1067, 1069, 1070, 1095, 1114, 1119, 1120, 1127],
     [1146, 1584, 1593, 1601, 1606, 1633, 1638, 1840],
     [1849, 1857, 1862, 1889, 1894, 2096, 2105, 2113],
     [2118, 2145, 2150, 0, 1033, 1037, 1056, 1057],
     [1061, 1063, 1083, 1085, 1150, 1066, 1067, 1069],
     [1070, 1095, 1114, 1119, 1120, 1127, 1146, 1584],
     [1593, 1601, 1606, 1633, 1638, 1840, 1849, 1857],
     [1862, 1889, 1894, 2096, 2105, 2113, 2118, 2145],
     [2150, 0, 547, 548, 550, 556, 559, 570],
     [571, 573, 575, 576, 1033, 1037, 1056, 1058],
     [1115, 1120, 1569, 1573, 1575, 1631, 1662, 1825],
     [1829, 1831, 1887, 1918, 2081, 2085, 2087, 2143],
     [2174, 552, 553, 1578, 1579, 1581, 1582, 1584],
     [1593, 1601, 1626, 1633, 1658, 1834, 1835, 1837],
     [1838, 1840, 1849, 1857, 1882, 1889, 1914, 2090],
     [2091, 2093, 2094, 2096, 2105, 2113, 2138, 2145],
     [2170, 0, 547, 548, 550, 556, 559, 570],
     [573, 575, 576, 1033, 1037, 1056, 1120, 1569],
     [1573, 1575, 1595, 1631, 1662, 1825, 1829, 1831],
     [1851, 1887, 1918, 2081, 2085, 2087, 2107, 2143],
     [2174, 552, 553, 1578, 1579, 1581, 1582, 1584],
     [1593, 1601, 1626, 1633, 1658, 1834, 1835, 1837],
     [1838, 1840, 1849, 1857, 1882, 1889, 1914, 2090],
     [2091, 2093, 2094, 2096, 2105, 2113, 2138, 2145],
     [2170, 0, 1033, 1037, 1056, 1057, 1061, 1063],
     [1083, 1150, 1066, 1067, 1069, 1070, 1095, 1114],
     [1119, 1120, 1127, 1146, 1584, 1593, 1601, 1606],
     [1633, 1638, 1840, 1849, 1857, 1862, 1889, 1894],
     [2096, 2105, 2113, 2118, 2145, 2150, 0, 1033],
     [1037, 1056, 1057, 1061, 1063, 1083, 1150, 1066],
     [1067, 1069, 1070, 1095, 1114, 1119, 1120, 1127],
     [1146, 1584, 1593, 1601, 1606, 1633, 1638, 1840],
     [1849, 1857, 1862, 1889, 1894, 2096, 2105, 2113],
     [2118, 2145, 2150, 0, 556, 575, 1033, 1037],
     [1056, 1569, 1571, 1573, 1583, 1594, 1597, 1600],
     [1631, 1662, 1825, 1827, 1829, 1839, 1850, 1851],
     [1853, 1856, 1887, 1918, 2081, 2083, 2085, 2095],
     [2106, 2107, 2109, 2112, 2143, 2174, 1572, 1579],
     [1581, 1595, 1601, 1626, 1633, 1658, 1828, 1835],
     [1837, 1849, 1857, 1882, 1889, 1914, 2084, 2091],
     [2093, 2105, 2113, 2138, 2145, 2170, 0, 556],
     [575, 1033, 1037, 1056, 1569, 1571, 1573, 1594],
     [1597, 1600, 1627, 1631, 1662, 1825, 1827, 1829],
     [1850, 1851, 1853, 1856, 1883, 1887, 1918, 2081],
     [2083, 2085, 2106, 2107, 2109, 2112, 2139, 2143],
     [2174, 1572, 1579, 1581, 1595, 1601, 1626, 1633],
     [1658, 1828, 1835, 1837, 1849, 1857, 1882, 1889],
     [1914, 2084, 2091, 2093, 2105, 2113, 2138, 2145],
     [2170, 0, 556, 575, 1033, 1037, 1056, 1569],
     [1571, 1573, 1594, 1597, 1600, 1631, 1662, 1825],
     [1827, 1829, 1850, 1851, 1853, 1856, 1887, 1918],
     [2081, 2083, 2085, 2106, 2107, 2109, 2112, 2143],
     [2174, 1572, 1579, 1581, 1595, 1601, 1626, 1633],
     [1658, 1828, 1835, 1837, 1849, 1857, 1882, 1889],
     [1914, 2084, 2091, 2093, 2105, 2113, 2138, 2145],
     [2170, 556, 571, 575, 1569, 1573, 1594, 1597],
     [1600, 1631, 1662, 1825, 1829, 1850, 1853, 1856],
     [1887, 1918, 2081, 2085, 2106, 2109, 2112, 2143],
     [2174, 1571, 1579, 1581, 1593, 1601, 1626, 1633],
     [1658, 1827, 1835, 1837, 1849, 1857, 1882, 1889],
     [1914, 2083, 2091, 2093, 2105, 2113, 2138, 2145],
     [2170, 1584, 1593, 1601, 1606, 1633, 1638, 1840],
     [1849, 1857, 1862, 1889, 1894, 2096, 2105, 2113],
     [2118, 2145, 2150, 1584, 1593, 1601, 1606, 1633],
     [1638, 1840, 1849, 1857, 1862, 1889, 1894, 2096],
     [2105, 2113, 2118, 2145, 2150, 556, 1569, 1573],
     [1597, 1600, 1631, 1662, 1825, 1829, 1853, 1856],
     [1887, 1918, 2081, 2085, 2109, 2112, 2143, 2174],
     [1572, 1579, 1581, 1582, 1584, 1593, 1601, 1626],
     [1633, 1658, 1828, 1835, 1837, 1838, 1840, 1849],
     [1857, 1882, 1889, 1914, 2084, 2091, 2093, 2094],
     [2096, 2105, 2113, 2138, 2145, 2170, 1584, 1593],
     [1601, 1606, 1633, 1638, 1840, 1849, 1857, 1862],
     [1889, 1894, 2096, 2105, 2113, 2118, 2145, 2150],
     [1584, 1593, 1601, 1606, 1633, 1638, 1840, 1849],
     [1857, 1862, 1889, 1894, 2096, 2105, 2113, 2118],
     [2145, 2150, 1584, 1585, 1586, 1627, 1840, 1841],
     [1842, 1883, 2096, 2097, 2098, 2139, 1587, 1593],
     [1601, 1626, 1633, 1658, 1843, 1849, 1857, 1882],
     [1889, 1914, 2099, 2105, 2113, 2138, 2145, 2170],
     [1581, 1582, 1631, 1837, 1838, 1887, 2093, 2094],
     [2143, 1584, 1593, 1601, 1626, 1633, 1658, 1840],
     [1849, 1857, 1882, 1889, 1914, 2096, 2105, 2113],
     [2138, 2145, 2170, 1581, 1631, 1837, 1887, 2093],
     [2143, 1584, 1593, 1601, 1626, 1633, 1658, 1840]]"

definition sup_trans_keys_27 :: "int list list" where
  "sup_trans_keys_27 =
    [[1849, 1857, 1882, 1889, 1914, 2096, 2105, 2113],
     [2138, 2145, 2170, 1581, 1582, 1631, 1837, 1838],
     [1887, 2093, 2094, 2143, 1584, 1593, 1601, 1626],
     [1633, 1658, 1840, 1849, 1857, 1882, 1889, 1914],
     [2096, 2105, 2113, 2138, 2145, 2170, 1584, 1593],
     [1601, 1626, 1633, 1658, 1840, 1849, 1857, 1882],
     [1889, 1914, 2096, 2105, 2113, 2138, 2145, 2170],
     [0, 575, 1033, 1037, 1056, 1083, 1581, 1582],
     [1583, 1594, 1631, 1837, 1838, 1839, 1850, 1887],
     [2093, 2094, 2095, 2106, 2143, 1584, 1593, 1601],
     [1626, 1633, 1658, 1840, 1849, 1857, 1882, 1889],
     [1914, 2096, 2105, 2113, 2138, 2145, 2170, 1581],
     [1631, 1837, 1887, 2093, 2143, 1584, 1593, 1601],
     [1626, 1633, 1658, 1840, 1849, 1857, 1882, 1889],
     [1914, 2096, 2105, 2113, 2138, 2145, 2170, 0],
     [575, 1033, 1037, 1056, 1083, 1583, 1594, 1839],
     [1850, 2095, 2106, 1584, 1593, 1601, 1626, 1633],
     [1658, 1840, 1849, 1857, 1882, 1889, 1914, 2096],
     [2105, 2113, 2138, 2145, 2170, 1584, 1590, 1840],
     [1846, 2096, 2102, 1585, 1589, 1591, 1593, 1841],
     [1845, 1847, 1849, 2097, 2101, 2103, 2105, 1584],
     [1840, 2096, 1585, 1593, 1841, 1849, 2097, 2105],
     [1584, 1840, 2096, 1585, 1593, 1841, 1849, 2097],
     [2105, 1585, 1593, 1841, 1849, 2097, 2105, 0],
     [575, 1033, 1037, 1056, 1083, 1583, 1839, 2095],
     [0, 575, 1033, 1037, 1056, 1083, 1583, 1839],
     [2095, 1584, 1593, 1840, 1849, 2096, 2105, 0],
     [575, 1033, 1037, 1056, 1083, 1583, 1839, 2095],
     [1584, 1593, 1840, 1849, 2096, 2105, 0, 575],
     [1033, 1037, 1056, 1083, 1583, 1839, 2095, 1584],
     [1593, 1840, 1849, 2096, 2105, 0, 575, 1033],
     [1037, 1056, 1083, 1583, 1839, 2095, 1584, 1593],
     [1840, 1849, 2096, 2105, 0, 575, 1033, 1037],
     [1056, 1083, 1583, 1589, 1839, 1845, 2095, 2101],
     [1584, 1588, 1590, 1593, 1840, 1844, 1846, 1849],
     [2096, 2100, 2102, 2105, 0, 575, 1033, 1037],
     [1056, 1083, 1583, 1589, 1839, 1845, 2095, 2101],
     [1584, 1588, 1590, 1593, 1840, 1844, 1846, 1849],
     [2096, 2100, 2102, 2105, 0, 575, 1033, 1037],
     [1056, 1083, 1583, 1587, 1839, 1843, 2095, 2099],
     [1584, 1586, 1588, 1593, 1840, 1842, 1844, 1849],
     [2096, 2098, 2100, 2105, 0, 575, 1033, 1037],
     [1056, 1083, 1583, 1839, 2095, 1584, 1589, 1840],
     [1845, 2096, 2101, 1584, 1585, 1586, 1840, 1841],
     [1842, 2096, 2097, 2098, 1587, 1593, 1601, 1626],
     [1633, 1658, 1843, 1849, 1857, 1882, 1889, 1914],
     [2099, 2105, 2113, 2138, 2145, 2170, 1581, 1582],
     [1631, 1837, 1838, 1887, 2093, 2094, 2143, 1584],
     [1593, 1601, 1626, 1633, 1658, 1840, 1849, 1857],
     [1882, 1889, 1914, 2096, 2105, 2113, 2138, 2145],
     [2170, 1584, 1585, 1586, 1840, 1841, 1842, 2096],
     [2097, 2098, 1587, 1593, 1601, 1626, 1633, 1658],
     [1843, 1849, 1857, 1882, 1889, 1914, 2099, 2105],
     [2113, 2138, 2145, 2170, 1581, 1582, 1631, 1837],
     [1838, 1887, 2093, 2094, 2143, 1584, 1593, 1601],
     [1626, 1633, 1658, 1840, 1849, 1857, 1882, 1889],
     [1914, 2096, 2105, 2113, 2138, 2145, 2170, 1584],
     [1585, 1586, 1840, 1841, 1842, 2096, 2097, 2098],
     [1587, 1593, 1601, 1626, 1633, 1658, 1843, 1849],
     [1857, 1882, 1889, 1914, 2099, 2105, 2113, 2138],
     [2145, 2170, 0, 575, 1033, 1037, 1056, 1083],
     [1581, 1582, 1583, 1594, 1631, 1837, 1838, 1839],
     [1850, 1887, 2093, 2094, 2095, 2106, 2143, 1584],
     [1593, 1601, 1626, 1633, 1658, 1840, 1849, 1857],
     [1882, 1889, 1914, 2096, 2105, 2113, 2138, 2145],
     [2170, 0, 575, 1033, 1037, 1056, 1083, 1581],
     [1582, 1583, 1594, 1631, 1837, 1838, 1839, 1850],
     [1887, 2093, 2094, 2095, 2106, 2143, 1584, 1593],
     [1601, 1626, 1633, 1658, 1840, 1849, 1857, 1882],
     [1889, 1914, 2096, 2105, 2113, 2138, 2145, 2170],
     [0, 575, 1033, 1037, 1056, 1083, 1581, 1582],
     [1583, 1594, 1631, 1837, 1838, 1839, 1850, 1887],
     [2093, 2094, 2095, 2106, 2143, 1584, 1593, 1601],
     [1626, 1633, 1658, 1840, 1849, 1857, 1882, 1889],
     [1914, 2096, 2105, 2113, 2138, 2145, 2170, 0],
     [575, 1033, 1037, 1056, 1083, 1581, 1582, 1583],
     [1589, 1594, 1631, 1837, 1838, 1839, 1845, 1850],
     [1887, 2093, 2094, 2095, 2101, 2106, 2143, 1584],
     [1588, 1590, 1593, 1601, 1626, 1633, 1658, 1840],
     [1844, 1846, 1849, 1857, 1882, 1889, 1914, 2096],
     [2100, 2102, 2105, 2113, 2138, 2145, 2170, 0],
     [575, 1033, 1037, 1056, 1083, 1581, 1582, 1583],
     [1594, 1631, 1837, 1838, 1839, 1850, 1887, 2093],
     [2094, 2095, 2106, 2143, 1584, 1589, 1590, 1593],
     [1601, 1626, 1633, 1658, 1840, 1845, 1846, 1849],
     [1857, 1882, 1889, 1914, 2096, 2101, 2102, 2105],
     [2113, 2138, 2145, 2170, 1581, 1582, 1631, 1837],
     [1838, 1887, 2093, 2094, 2143, 1584, 1593, 1601],
     [1626, 1633, 1658, 1840, 1849, 1857, 1882, 1889],
     [1914, 2096, 2105, 2113, 2138, 2145, 2170, 1581],
     [1582, 1631, 1837, 1838, 1887, 2093, 2094, 2143],
     [1584, 1593, 1601, 1626, 1633, 1658, 1840, 1849],
     [1857, 1882, 1889, 1914, 2096, 2105, 2113, 2138],
     [2145, 2170, 1581, 1582, 1589, 1631, 1837, 1838],
     [1845, 1887, 2093, 2094, 2101, 2143, 1584, 1588],
     [1590, 1593, 1601, 1626, 1633, 1658, 1840, 1844],
     [1846, 1849, 1857, 1882, 1889, 1914, 2096, 2100],
     [2102, 2105, 2113, 2138, 2145, 2170, 1581, 1582],
     [1631, 1837, 1838, 1887, 2093, 2094, 2143, 1584],
     [1589, 1590, 1593, 1601, 1626, 1633, 1658, 1840],
     [1845, 1846, 1849, 1857, 1882, 1889, 1914, 2096],
     [2101, 2102, 2105, 2113, 2138, 2145, 2170, 1581],
     [1582, 1631, 1837, 1838, 1887, 2093, 2094, 2143],
     [1584, 1593, 1601, 1626, 1633, 1658, 1840, 1849],
     [1857, 1882, 1889, 1914, 2096, 2105, 2113, 2138],
     [2145, 2170, 1581, 1582, 1631, 1837, 1838, 1887],
     [2093, 2094, 2143, 1584, 1593, 1601, 1626, 1633],
     [1658, 1840, 1849, 1857, 1882, 1889, 1914, 2096],
     [2105, 2113, 2138, 2145, 2170, 1581, 1582, 1589],
     [1631, 1837, 1838, 1845, 1887, 2093, 2094, 2101],
     [2143, 1584, 1588, 1590, 1593, 1601, 1626, 1633],
     [1658, 1840, 1844, 1846, 1849, 1857, 1882, 1889],
     [1914, 2096, 2100, 2102, 2105, 2113, 2138, 2145],
     [2170, 1581, 1582, 1631, 1837, 1838, 1887, 2093],
     [2094, 2143, 1584, 1589, 1590, 1593, 1601, 1626],
     [1633, 1658, 1840, 1845, 1846, 1849, 1857, 1882],
     [1889, 1914, 2096, 2101, 2102, 2105, 2113, 2138],
     [2145, 2170, 1581, 1582, 1631, 1837, 1838, 1887],
     [2093, 2094, 2143, 1584, 1593, 1601, 1626, 1633],
     [1658, 1840, 1849, 1857, 1882, 1889, 1914, 2096],
     [2105, 2113, 2138, 2145, 2170, 1581, 1582, 1631],
     [1837, 1838, 1887, 2093, 2094, 2143, 1584, 1593],
     [1601, 1626, 1633, 1658, 1840, 1849, 1857, 1882],
     [1889, 1914, 2096, 2105, 2113, 2138, 2145, 2170],
     [1581, 1582, 1589, 1631, 1837, 1838, 1845, 1887],
     [2093, 2094, 2101, 2143, 1584, 1588, 1590, 1593],
     [1601, 1626, 1633, 1658, 1840, 1844, 1846, 1849],
     [1857, 1882, 1889, 1914, 2096, 2100, 2102, 2105],
     [2113, 2138, 2145, 2170, 1581, 1582, 1631, 1837],
     [1838, 1887, 2093, 2094, 2143, 1584, 1589, 1590],
     [1593, 1601, 1626, 1633, 1658, 1840, 1845, 1846],
     [1849, 1857, 1882, 1889, 1914, 2096, 2101, 2102],
     [2105, 2113, 2138, 2145, 2170, 1594, 1850, 2106],
     [1584, 1593, 1601, 1606, 1633, 1638, 1840, 1849],
     [1857, 1862, 1889, 1894, 2096, 2105, 2113, 2118],
     [2145, 2150, 1594, 1850, 2106, 1584, 1593, 1601],
     [1606, 1633, 1638, 1840, 1849, 1857, 1862, 1889],
     [1894, 2096, 2105, 2113, 2118, 2145, 2150, 1594],
     [1850, 2106, 1584, 1593, 1601, 1606, 1633, 1638],
     [1840, 1849, 1857, 1862, 1889, 1894, 2096, 2105],
     [2113, 2118, 2145, 2150, 1594, 1850, 2106, 1584],
     [1593, 1601, 1606, 1633, 1638, 1840, 1849, 1857],
     [1862, 1889, 1894, 2096, 2105, 2113, 2118, 2145],
     [2150, 1594, 1850, 2106, 1594, 1850, 2106, 1584],
     [1593, 1601, 1606, 1633, 1638, 1840, 1849, 1857],
     [1862, 1889, 1894, 2096, 2105, 2113, 2118, 2145],
     [2150, 1594, 1850, 2106, 1584, 1593, 1601, 1606],
     [1633, 1638, 1840, 1849, 1857, 1862, 1889, 1894],
     [2096, 2105, 2113, 2118, 2145, 2150, 1594, 1850],
     [2106, 1584, 1593, 1601, 1606, 1633, 1638, 1840]]"

definition sup_trans_keys_28 :: "int list list" where
  "sup_trans_keys_28 =
    [[1849, 1857, 1862, 1889, 1894, 2096, 2105, 2113],
     [2118, 2145, 2150, 1594, 1850, 2106, 1584, 1593],
     [1601, 1606, 1633, 1638, 1840, 1849, 1857, 1862],
     [1889, 1894, 2096, 2105, 2113, 2118, 2145, 2150],
     [1594, 1850, 2106, 1594, 1850, 2106, 1584, 1593],
     [1601, 1606, 1633, 1638, 1840, 1849, 1857, 1862],
     [1889, 1894, 2096, 2105, 2113, 2118, 2145, 2150],
     [1594, 1850, 2106, 1584, 1593, 1601, 1606, 1633],
     [1638, 1840, 1849, 1857, 1862, 1889, 1894, 2096],
     [2105, 2113, 2118, 2145, 2150, 1594, 1850, 2106],
     [1584, 1593, 1601, 1606, 1633, 1638, 1840, 1849],
     [1857, 1862, 1889, 1894, 2096, 2105, 2113, 2118],
     [2145, 2150, 1594, 1850, 2106, 1584, 1593, 1601],
     [1606, 1633, 1638, 1840, 1849, 1857, 1862, 1889],
     [1894, 2096, 2105, 2113, 2118, 2145, 2150, 1594],
     [1850, 2106, 1594, 1850, 2106, 1584, 1593, 1601],
     [1606, 1633, 1638, 1840, 1849, 1857, 1862, 1889],
     [1894, 2096, 2105, 2113, 2118, 2145, 2150, 1594],
     [1850, 2106, 1584, 1593, 1601, 1606, 1633, 1638],
     [1840, 1849, 1857, 1862, 1889, 1894, 2096, 2105],
     [2113, 2118, 2145, 2150, 1594, 1850, 2106, 1584],
     [1593, 1601, 1606, 1633, 1638, 1840, 1849, 1857],
     [1862, 1889, 1894, 2096, 2105, 2113, 2118, 2145],
     [2150, 1594, 1850, 2106, 1584, 1593, 1601, 1606],
     [1633, 1638, 1840, 1849, 1857, 1862, 1889, 1894],
     [2096, 2105, 2113, 2118, 2145, 2150, 1594, 1850],
     [2106, 1594, 1850, 2106, 1584, 1593, 1601, 1606],
     [1633, 1638, 1840, 1849, 1857, 1862, 1889, 1894],
     [2096, 2105, 2113, 2118, 2145, 2150, 1594, 1850],
     [2106, 1584, 1593, 1601, 1606, 1633, 1638, 1840],
     [1849, 1857, 1862, 1889, 1894, 2096, 2105, 2113],
     [2118, 2145, 2150, 1594, 1850, 2106, 1584, 1593],
     [1601, 1606, 1633, 1638, 1840, 1849, 1857, 1862],
     [1889, 1894, 2096, 2105, 2113, 2118, 2145, 2150],
     [1594, 1850, 2106, 1584, 1593, 1601, 1606, 1633],
     [1638, 1840, 1849, 1857, 1862, 1889, 1894, 2096],
     [2105, 2113, 2118, 2145, 2150, 1594, 1850, 2106],
     [1594, 1850, 2106, 1584, 1593, 1601, 1606, 1633],
     [1638, 1840, 1849, 1857, 1862, 1889, 1894, 2096],
     [2105, 2113, 2118, 2145, 2150, 1594, 1850, 2106],
     [1584, 1593, 1601, 1606, 1633, 1638, 1840, 1849],
     [1857, 1862, 1889, 1894, 2096, 2105, 2113, 2118],
     [2145, 2150, 1594, 1850, 2106, 1584, 1593, 1601],
     [1606, 1633, 1638, 1840, 1849, 1857, 1862, 1889],
     [1894, 2096, 2105, 2113, 2118, 2145, 2150, 1594],
     [1850, 2106, 1584, 1593, 1601, 1606, 1633, 1638],
     [1840, 1849, 1857, 1862, 1889, 1894, 2096, 2105],
     [2113, 2118, 2145, 2150, 1594, 1850, 2106, 1584],
     [1585, 1586, 1594, 1840, 1841, 1842, 1850, 2096],
     [2097, 2098, 2106, 1587, 1593, 1601, 1606, 1633],
     [1638, 1843, 1849, 1857, 1862, 1889, 1894, 2099],
     [2105, 2113, 2118, 2145, 2150, 1582, 1594, 1838],
     [1850, 2094, 2106, 1584, 1593, 1601, 1606, 1633],
     [1638, 1840, 1849, 1857, 1862, 1889, 1894, 2096],
     [2105, 2113, 2118, 2145, 2150, 1584, 1585, 1586],
     [1840, 1841, 1842, 2096, 2097, 2098, 1587, 1593],
     [1843, 1849, 2099, 2105, 1582, 1838, 2094, 1584],
     [1585, 1586, 1840, 1841, 1842, 2096, 2097, 2098],
     [1587, 1593, 1843, 1849, 2099, 2105, 1582, 1838],
     [2094, 1584, 1585, 1586, 1840, 1841, 1842, 2096],
     [2097, 2098, 1587, 1593, 1843, 1849, 2099, 2105],
     [1629, 1885, 2141, 0, 575, 1033, 1037, 1056],
     [1083, 1583, 1594, 1839, 1850, 2095, 2106, 1629],
     [1885, 2141, 1584, 1593, 1840, 1849, 2096, 2105],
     [1629, 1885, 2141, 1584, 1593, 1840, 1849, 2096],
     [2105, 1589, 1629, 1845, 1885, 2101, 2141, 1584],
     [1588, 1590, 1593, 1840, 1844, 1846, 1849, 2096],
     [2100, 2102, 2105, 1629, 1885, 2141, 1584, 1589],
     [1840, 1845, 2096, 2101, 1582, 1838, 2094, 1584],
     [1593, 1840, 1849, 2096, 2105, 1582, 1838, 2094],
     [1584, 1593, 1840, 1849, 2096, 2105, 1582, 1589],
     [1838, 1845, 2094, 2101, 1584, 1588, 1590, 1593],
     [1840, 1844, 1846, 1849, 2096, 2100, 2102, 2105],
     [1582, 1838, 2094, 1584, 1589, 1840, 1845, 2096],
     [2101, 1582, 1838, 2094, 1584, 1593, 1840, 1849],
     [2096, 2105, 1582, 1838, 2094, 1584, 1593, 1840],
     [1849, 2096, 2105, 1582, 1589, 1838, 1845, 2094],
     [2101, 1584, 1588, 1590, 1593, 1840, 1844, 1846],
     [1849, 2096, 2100, 2102, 2105, 1582, 1838, 2094],
     [1584, 1589, 1840, 1845, 2096, 2101, 1594, 1850],
     [2106, 1584, 1593, 1601, 1606, 1633, 1638, 1840],
     [1849, 1857, 1862, 1889, 1894, 2096, 2105, 2113],
     [2118, 2145, 2150, 1594, 1850, 2106, 1584, 1593],
     [1601, 1606, 1633, 1638, 1840, 1849, 1857, 1862],
     [1889, 1894, 2096, 2105, 2113, 2118, 2145, 2150],
     [1594, 1850, 2106, 1594, 1850, 2106, 1584, 1593],
     [1601, 1606, 1633, 1638, 1840, 1849, 1857, 1862],
     [1889, 1894, 2096, 2105, 2113, 2118, 2145, 2150],
     [1629, 1885, 2141, 1584, 1593, 1601, 1606, 1633],
     [1638, 1840, 1849, 1857, 1862, 1889, 1894, 2096],
     [2105, 2113, 2118, 2145, 2150, 1629, 1885, 2141],
     [1584, 1593, 1601, 1606, 1633, 1638, 1840, 1849],
     [1857, 1862, 1889, 1894, 2096, 2105, 2113, 2118],
     [2145, 2150, 1629, 1885, 2141, 1584, 1593, 1601],
     [1606, 1633, 1638, 1840, 1849, 1857, 1862, 1889],
     [1894, 2096, 2105, 2113, 2118, 2145, 2150, 1582],
     [1594, 1838, 1850, 2094, 2106, 1584, 1593, 1601],
     [1606, 1633, 1638, 1840, 1849, 1857, 1862, 1889],
     [1894, 2096, 2105, 2113, 2118, 2145, 2150, 1582],
     [1594, 1838, 1850, 2094, 2106, 1584, 1593, 1601],
     [1606, 1633, 1638, 1840, 1849, 1857, 1862, 1889],
     [1894, 2096, 2105, 2113, 2118, 2145, 2150, 1582],
     [1594, 1838, 1850, 2094, 2106, 1584, 1593, 1601],
     [1606, 1633, 1638, 1840, 1849, 1857, 1862, 1889],
     [1894, 2096, 2105, 2113, 2118, 2145, 2150, 1582],
     [1589, 1594, 1838, 1845, 1850, 2094, 2101, 2106],
     [1584, 1588, 1590, 1593, 1601, 1606, 1633, 1638],
     [1840, 1844, 1846, 1849, 1857, 1862, 1889, 1894],
     [2096, 2100, 2102, 2105, 2113, 2118, 2145, 2150],
     [1582, 1594, 1838, 1850, 2094, 2106, 1584, 1589],
     [1590, 1593, 1601, 1606, 1633, 1638, 1840, 1845],
     [1846, 1849, 1857, 1862, 1889, 1894, 2096, 2101],
     [2102, 2105, 2113, 2118, 2145, 2150, 1582, 1594],
     [1838, 1850, 2094, 2106, 1584, 1593, 1601, 1606],
     [1633, 1638, 1840, 1849, 1857, 1862, 1889, 1894],
     [2096, 2105, 2113, 2118, 2145, 2150, 1582, 1594],
     [1838, 1850, 2094, 2106, 1584, 1593, 1601, 1606],
     [1633, 1638, 1840, 1849, 1857, 1862, 1889, 1894],
     [2096, 2105, 2113, 2118, 2145, 2150, 1629, 1885],
     [2141, 1584, 1593, 1601, 1606, 1633, 1638, 1840],
     [1849, 1857, 1862, 1889, 1894, 2096, 2105, 2113],
     [2118, 2145, 2150, 1594, 1850, 2106, 1584, 1593],
     [1601, 1606, 1633, 1638, 1840, 1849, 1857, 1862],
     [1889, 1894, 2096, 2105, 2113, 2118, 2145, 2150],
     [1584, 1585, 1586, 1629, 1840, 1841, 1842, 1885],
     [2096, 2097, 2098, 2141, 1587, 1593, 1601, 1606],
     [1633, 1638, 1843, 1849, 1857, 1862, 1889, 1894],
     [2099, 2105, 2113, 2118, 2145, 2150, 1582, 1594],
     [1629, 1838, 1850, 1885, 2094, 2106, 2141, 1584],
     [1593, 1601, 1606, 1633, 1638, 1840, 1849, 1857],
     [1862, 1889, 1894, 2096, 2105, 2113, 2118, 2145],
     [2150, 1594, 1629, 1850, 1885, 2106, 2141, 1584],
     [1593, 1601, 1606, 1633, 1638, 1840, 1849, 1857],
     [1862, 1889, 1894, 2096, 2105, 2113, 2118, 2145],
     [2150, 1594, 1629, 1850, 1885, 2106, 2141, 1584],
     [1593, 1601, 1606, 1633, 1638, 1840, 1849, 1857],
     [1862, 1889, 1894, 2096, 2105, 2113, 2118, 2145],
     [2150, 1594, 1629, 1850, 1885, 2106, 2141, 1584],
     [1593, 1601, 1606, 1633, 1638, 1840, 1849, 1857],
     [1862, 1889, 1894, 2096, 2105, 2113, 2118, 2145],
     [2150, 1582, 1594, 1629, 1838, 1850, 1885, 2094],
     [2106, 2141, 1584, 1593, 1601, 1606, 1633, 1638],
     [1840, 1849, 1857, 1862, 1889, 1894, 2096, 2105],
     [2113, 2118, 2145, 2150, 1582, 1594, 1629, 1838],
     [1850, 1885, 2094, 2106, 2141, 1584, 1593, 1601],
     [1606, 1633, 1638, 1840, 1849, 1857, 1862, 1889],
     [1894, 2096, 2105, 2113, 2118, 2145, 2150, 1582],
     [1594, 1629, 1838, 1850, 1885, 2094, 2106, 2141],
     [1584, 1593, 1601, 1606, 1633, 1638, 1840, 1849],
     [1857, 1862, 1889, 1894, 2096, 2105, 2113, 2118]]"

definition sup_trans_keys_29 :: "int list list" where
  "sup_trans_keys_29 =
    [[2145, 2150, 1582, 1589, 1594, 1629, 1838, 1845],
     [1850, 1885, 2094, 2101, 2106, 2141, 1584, 1588],
     [1590, 1593, 1601, 1606, 1633, 1638, 1840, 1844],
     [1846, 1849, 1857, 1862, 1889, 1894, 2096, 2100],
     [2102, 2105, 2113, 2118, 2145, 2150, 1582, 1594],
     [1629, 1838, 1850, 1885, 2094, 2106, 2141, 1584],
     [1589, 1590, 1593, 1601, 1606, 1633, 1638, 1840],
     [1845, 1846, 1849, 1857, 1862, 1889, 1894, 2096],
     [2101, 2102, 2105, 2113, 2118, 2145, 2150, 1582],
     [1594, 1629, 1838, 1850, 1885, 2094, 2106, 2141],
     [1584, 1593, 1601, 1606, 1633, 1638, 1840, 1849],
     [1857, 1862, 1889, 1894, 2096, 2105, 2113, 2118],
     [2145, 2150, 1582, 1594, 1629, 1838, 1850, 1885],
     [2094, 2106, 2141, 1584, 1593, 1601, 1606, 1633],
     [1638, 1840, 1849, 1857, 1862, 1889, 1894, 2096],
     [2105, 2113, 2118, 2145, 2150, 1594, 1629, 1850],
     [1885, 2106, 2141, 1584, 1593, 1601, 1606, 1633],
     [1638, 1840, 1849, 1857, 1862, 1889, 1894, 2096],
     [2105, 2113, 2118, 2145, 2150, 1584, 1585, 1586],
     [1629, 1840, 1841, 1842, 1885, 2096, 2097, 2098],
     [2141, 1587, 1593, 1601, 1606, 1633, 1638, 1843],
     [1849, 1857, 1862, 1889, 1894, 2099, 2105, 2113],
     [2118, 2145, 2150, 1582, 1594, 1629, 1838, 1850],
     [1885, 2094, 2106, 2141, 1584, 1593, 1601, 1606],
     [1633, 1638, 1840, 1849, 1857, 1862, 1889, 1894],
     [2096, 2105, 2113, 2118, 2145, 2150, 1594, 1629],
     [1850, 1885, 2106, 2141, 1584, 1593, 1601, 1606],
     [1633, 1638, 1840, 1849, 1857, 1862, 1889, 1894],
     [2096, 2105, 2113, 2118, 2145, 2150, 1594, 1629],
     [1850, 1885, 2106, 2141, 1584, 1593, 1601, 1606],
     [1633, 1638, 1840, 1849, 1857, 1862, 1889, 1894],
     [2096, 2105, 2113, 2118, 2145, 2150, 1594, 1629],
     [1850, 1885, 2106, 2141, 1584, 1585, 1586, 1840],
     [1841, 1842, 2096, 2097, 2098, 1587, 1593, 1601],
     [1606, 1633, 1638, 1843, 1849, 1857, 1862, 1889],
     [1894, 2099, 2105, 2113, 2118, 2145, 2150, 1582],
     [1594, 1629, 1838, 1850, 1885, 2094, 2106, 2141],
     [1584, 1593, 1601, 1606, 1633, 1638, 1840, 1849],
     [1857, 1862, 1889, 1894, 2096, 2105, 2113, 2118],
     [2145, 2150, 1582, 1594, 1629, 1838, 1850, 1885],
     [2094, 2106, 2141, 1584, 1593, 1601, 1606, 1633],
     [1638, 1840, 1849, 1857, 1862, 1889, 1894, 2096],
     [2105, 2113, 2118, 2145, 2150, 1582, 1594, 1629],
     [1838, 1850, 1885, 2094, 2106, 2141, 1584, 1593],
     [1601, 1606, 1633, 1638, 1840, 1849, 1857, 1862],
     [1889, 1894, 2096, 2105, 2113, 2118, 2145, 2150],
     [1582, 1589, 1594, 1629, 1838, 1845, 1850, 1885],
     [2094, 2101, 2106, 2141, 1584, 1588, 1590, 1593],
     [1601, 1606, 1633, 1638, 1840, 1844, 1846, 1849],
     [1857, 1862, 1889, 1894, 2096, 2100, 2102, 2105],
     [2113, 2118, 2145, 2150, 1582, 1594, 1629, 1838],
     [1850, 1885, 2094, 2106, 2141, 1584, 1589, 1590],
     [1593, 1601, 1606, 1633, 1638, 1840, 1845, 1846],
     [1849, 1857, 1862, 1889, 1894, 2096, 2101, 2102],
     [2105, 2113, 2118, 2145, 2150, 1582, 1594, 1629],
     [1838, 1850, 1885, 2094, 2106, 2141, 1584, 1593],
     [1601, 1606, 1633, 1638, 1840, 1849, 1857, 1862],
     [1889, 1894, 2096, 2105, 2113, 2118, 2145, 2150],
     [1582, 1594, 1629, 1838, 1850, 1885, 2094, 2106],
     [2141, 1584, 1593, 1601, 1606, 1633, 1638, 1840],
     [1849, 1857, 1862, 1889, 1894, 2096, 2105, 2113],
     [2118, 2145, 2150, 1594, 1629, 1850, 1885, 2106],
     [2141, 1584, 1593, 1601, 1606, 1633, 1638, 1840],
     [1849, 1857, 1862, 1889, 1894, 2096, 2105, 2113],
     [2118, 2145, 2150, 1584, 1585, 1586, 1629, 1840],
     [1841, 1842, 1885, 2096, 2097, 2098, 2141, 1587],
     [1593, 1601, 1606, 1633, 1638, 1843, 1849, 1857],
     [1862, 1889, 1894, 2099, 2105, 2113, 2118, 2145],
     [2150, 1582, 1594, 1629, 1838, 1850, 1885, 2094],
     [2106, 2141, 1584, 1593, 1601, 1606, 1633, 1638],
     [1840, 1849, 1857, 1862, 1889, 1894, 2096, 2105],
     [2113, 2118, 2145, 2150, 1594, 1629, 1850, 1885],
     [2106, 2141, 1584, 1593, 1601, 1606, 1633, 1638],
     [1840, 1849, 1857, 1862, 1889, 1894, 2096, 2105],
     [2113, 2118, 2145, 2150, 1594, 1629, 1850, 1885],
     [2106, 2141, 1584, 1593, 1601, 1606, 1633, 1638],
     [1840, 1849, 1857, 1862, 1889, 1894, 2096, 2105],
     [2113, 2118, 2145, 2150, 1594, 1629, 1850, 1885],
     [2106, 2141, 1584, 1585, 1586, 1840, 1841, 1842],
     [2096, 2097, 2098, 1587, 1593, 1601, 1606, 1633],
     [1638, 1843, 1849, 1857, 1862, 1889, 1894, 2099],
     [2105, 2113, 2118, 2145, 2150, 1582, 1594, 1629],
     [1838, 1850, 1885, 2094, 2106, 2141, 1584, 1593],
     [1601, 1606, 1633, 1638, 1840, 1849, 1857, 1862],
     [1889, 1894, 2096, 2105, 2113, 2118, 2145, 2150],
     [1582, 1594, 1629, 1838, 1850, 1885, 2094, 2106],
     [2141, 1584, 1593, 1601, 1606, 1633, 1638, 1840],
     [1849, 1857, 1862, 1889, 1894, 2096, 2105, 2113],
     [2118, 2145, 2150, 1582, 1594, 1629, 1838, 1850],
     [1885, 2094, 2106, 2141, 1584, 1593, 1601, 1606],
     [1633, 1638, 1840, 1849, 1857, 1862, 1889, 1894],
     [2096, 2105, 2113, 2118, 2145, 2150, 1582, 1589],
     [1594, 1629, 1838, 1845, 1850, 1885, 2094, 2101],
     [2106, 2141, 1584, 1588, 1590, 1593, 1601, 1606],
     [1633, 1638, 1840, 1844, 1846, 1849, 1857, 1862],
     [1889, 1894, 2096, 2100, 2102, 2105, 2113, 2118],
     [2145, 2150, 1582, 1594, 1629, 1838, 1850, 1885],
     [2094, 2106, 2141, 1584, 1589, 1590, 1593, 1601],
     [1606, 1633, 1638, 1840, 1845, 1846, 1849, 1857],
     [1862, 1889, 1894, 2096, 2101, 2102, 2105, 2113],
     [2118, 2145, 2150, 1582, 1594, 1629, 1838, 1850],
     [1885, 2094, 2106, 2141, 1584, 1593, 1601, 1606],
     [1633, 1638, 1840, 1849, 1857, 1862, 1889, 1894],
     [2096, 2105, 2113, 2118, 2145, 2150, 1582, 1594],
     [1629, 1838, 1850, 1885, 2094, 2106, 2141, 1584],
     [1593, 1601, 1606, 1633, 1638, 1840, 1849, 1857],
     [1862, 1889, 1894, 2096, 2105, 2113, 2118, 2145],
     [2150, 1594, 1629, 1850, 1885, 2106, 2141, 1584],
     [1593, 1601, 1606, 1633, 1638, 1840, 1849, 1857],
     [1862, 1889, 1894, 2096, 2105, 2113, 2118, 2145],
     [2150, 1584, 1585, 1586, 1629, 1840, 1841, 1842],
     [1885, 2096, 2097, 2098, 2141, 1587, 1593, 1601],
     [1606, 1633, 1638, 1843, 1849, 1857, 1862, 1889],
     [1894, 2099, 2105, 2113, 2118, 2145, 2150, 1582],
     [1594, 1629, 1838, 1850, 1885, 2094, 2106, 2141],
     [1584, 1593, 1601, 1606, 1633, 1638, 1840, 1849],
     [1857, 1862, 1889, 1894, 2096, 2105, 2113, 2118],
     [2145, 2150, 1594, 1629, 1850, 1885, 2106, 2141],
     [1584, 1593, 1601, 1606, 1633, 1638, 1840, 1849],
     [1857, 1862, 1889, 1894, 2096, 2105, 2113, 2118],
     [2145, 2150, 1594, 1629, 1850, 1885, 2106, 2141],
     [1584, 1593, 1601, 1606, 1633, 1638, 1840, 1849],
     [1857, 1862, 1889, 1894, 2096, 2105, 2113, 2118],
     [2145, 2150, 1594, 1629, 1850, 1885, 2106, 2141],
     [1584, 1585, 1586, 1840, 1841, 1842, 2096, 2097],
     [2098, 1587, 1593, 1601, 1606, 1633, 1638, 1843],
     [1849, 1857, 1862, 1889, 1894, 2099, 2105, 2113],
     [2118, 2145, 2150, 1582, 1594, 1629, 1838, 1850],
     [1885, 2094, 2106, 2141, 1584, 1593, 1601, 1606],
     [1633, 1638, 1840, 1849, 1857, 1862, 1889, 1894],
     [2096, 2105, 2113, 2118, 2145, 2150, 1582, 1594],
     [1629, 1838, 1850, 1885, 2094, 2106, 2141, 1584],
     [1593, 1601, 1606, 1633, 1638, 1840, 1849, 1857],
     [1862, 1889, 1894, 2096, 2105, 2113, 2118, 2145],
     [2150, 1582, 1594, 1629, 1838, 1850, 1885, 2094],
     [2106, 2141, 1584, 1593, 1601, 1606, 1633, 1638],
     [1840, 1849, 1857, 1862, 1889, 1894, 2096, 2105],
     [2113, 2118, 2145, 2150, 1582, 1589, 1594, 1629],
     [1838, 1845, 1850, 1885, 2094, 2101, 2106, 2141],
     [1584, 1588, 1590, 1593, 1601, 1606, 1633, 1638],
     [1840, 1844, 1846, 1849, 1857, 1862, 1889, 1894],
     [2096, 2100, 2102, 2105, 2113, 2118, 2145, 2150],
     [1582, 1594, 1629, 1838, 1850, 1885, 2094, 2106],
     [2141, 1584, 1589, 1590, 1593, 1601, 1606, 1633],
     [1638, 1840, 1845, 1846, 1849, 1857, 1862, 1889],
     [1894, 2096, 2101, 2102, 2105, 2113, 2118, 2145],
     [2150, 1582, 1594, 1629, 1838, 1850, 1885, 2094],
     [2106, 2141, 1584, 1593, 1601, 1606, 1633, 1638],
     [1840, 1849, 1857, 1862, 1889, 1894, 2096, 2105],
     [2113, 2118, 2145, 2150, 1582, 1594, 1629, 1838]]"

definition sup_trans_keys_30 :: "int list list" where
  "sup_trans_keys_30 =
    [[1850, 1885, 2094, 2106, 2141, 1584, 1593, 1601],
     [1606, 1633, 1638, 1840, 1849, 1857, 1862, 1889],
     [1894, 2096, 2105, 2113, 2118, 2145, 2150, 1594],
     [1629, 1850, 1885, 2106, 2141, 1584, 1593, 1601],
     [1606, 1633, 1638, 1840, 1849, 1857, 1862, 1889],
     [1894, 2096, 2105, 2113, 2118, 2145, 2150, 1584],
     [1585, 1586, 1629, 1840, 1841, 1842, 1885, 2096],
     [2097, 2098, 2141, 1587, 1593, 1601, 1606, 1633],
     [1638, 1843, 1849, 1857, 1862, 1889, 1894, 2099],
     [2105, 2113, 2118, 2145, 2150, 1582, 1594, 1629],
     [1838, 1850, 1885, 2094, 2106, 2141, 1584, 1593],
     [1601, 1606, 1633, 1638, 1840, 1849, 1857, 1862],
     [1889, 1894, 2096, 2105, 2113, 2118, 2145, 2150],
     [1594, 1629, 1850, 1885, 2106, 2141, 1584, 1593],
     [1601, 1606, 1633, 1638, 1840, 1849, 1857, 1862],
     [1889, 1894, 2096, 2105, 2113, 2118, 2145, 2150],
     [1594, 1629, 1850, 1885, 2106, 2141, 1584, 1593],
     [1601, 1606, 1633, 1638, 1840, 1849, 1857, 1862],
     [1889, 1894, 2096, 2105, 2113, 2118, 2145, 2150],
     [1594, 1629, 1850, 1885, 2106, 2141, 1584, 1585],
     [1586, 1840, 1841, 1842, 2096, 2097, 2098, 1587],
     [1593, 1601, 1606, 1633, 1638, 1843, 1849, 1857],
     [1862, 1889, 1894, 2099, 2105, 2113, 2118, 2145],
     [2150, 1582, 1594, 1629, 1838, 1850, 1885, 2094],
     [2106, 2141, 1584, 1593, 1601, 1606, 1633, 1638],
     [1840, 1849, 1857, 1862, 1889, 1894, 2096, 2105],
     [2113, 2118, 2145, 2150, 1582, 1594, 1629, 1838],
     [1850, 1885, 2094, 2106, 2141, 1584, 1593, 1601],
     [1606, 1633, 1638, 1840, 1849, 1857, 1862, 1889],
     [1894, 2096, 2105, 2113, 2118, 2145, 2150, 1582],
     [1594, 1629, 1838, 1850, 1885, 2094, 2106, 2141],
     [1584, 1593, 1601, 1606, 1633, 1638, 1840, 1849],
     [1857, 1862, 1889, 1894, 2096, 2105, 2113, 2118],
     [2145, 2150, 1582, 1589, 1594, 1629, 1838, 1845],
     [1850, 1885, 2094, 2101, 2106, 2141, 1584, 1588],
     [1590, 1593, 1601, 1606, 1633, 1638, 1840, 1844],
     [1846, 1849, 1857, 1862, 1889, 1894, 2096, 2100],
     [2102, 2105, 2113, 2118, 2145, 2150, 1582, 1594],
     [1629, 1838, 1850, 1885, 2094, 2106, 2141, 1584],
     [1589, 1590, 1593, 1601, 1606, 1633, 1638, 1840],
     [1845, 1846, 1849, 1857, 1862, 1889, 1894, 2096],
     [2101, 2102, 2105, 2113, 2118, 2145, 2150, 1582],
     [1594, 1629, 1838, 1850, 1885, 2094, 2106, 2141],
     [1584, 1593, 1601, 1606, 1633, 1638, 1840, 1849],
     [1857, 1862, 1889, 1894, 2096, 2105, 2113, 2118],
     [2145, 2150, 1582, 1594, 1629, 1838, 1850, 1885],
     [2094, 2106, 2141, 1584, 1593, 1601, 1606, 1633],
     [1638, 1840, 1849, 1857, 1862, 1889, 1894, 2096],
     [2105, 2113, 2118, 2145, 2150, 1594, 1629, 1850],
     [1885, 2106, 2141, 1584, 1593, 1601, 1606, 1633],
     [1638, 1840, 1849, 1857, 1862, 1889, 1894, 2096],
     [2105, 2113, 2118, 2145, 2150, 1594, 1850, 2106],
     [1584, 1585, 1586, 1629, 1840, 1841, 1842, 1885],
     [2096, 2097, 2098, 2141, 1587, 1593, 1601, 1606],
     [1633, 1638, 1843, 1849, 1857, 1862, 1889, 1894],
     [2099, 2105, 2113, 2118, 2145, 2150, 1582, 1594],
     [1629, 1838, 1850, 1885, 2094, 2106, 2141, 1584],
     [1593, 1601, 1606, 1633, 1638, 1840, 1849, 1857],
     [1862, 1889, 1894, 2096, 2105, 2113, 2118, 2145],
     [2150, 1594, 1629, 1850, 1885, 2106, 2141, 1584],
     [1593, 1601, 1606, 1633, 1638, 1840, 1849, 1857],
     [1862, 1889, 1894, 2096, 2105, 2113, 2118, 2145],
     [2150, 1594, 1629, 1850, 1885, 2106, 2141, 1584],
     [1593, 1601, 1606, 1633, 1638, 1840, 1849, 1857],
     [1862, 1889, 1894, 2096, 2105, 2113, 2118, 2145],
     [2150, 1594, 1629, 1850, 1885, 2106, 2141, 1584],
     [1585, 1586, 1840, 1841, 1842, 2096, 2097, 2098],
     [1587, 1593, 1601, 1606, 1633, 1638, 1843, 1849],
     [1857, 1862, 1889, 1894, 2099, 2105, 2113, 2118],
     [2145, 2150, 1582, 1594, 1629, 1838, 1850, 1885],
     [2094, 2106, 2141, 1584, 1593, 1601, 1606, 1633],
     [1638, 1840, 1849, 1857, 1862, 1889, 1894, 2096],
     [2105, 2113, 2118, 2145, 2150, 1582, 1594, 1629],
     [1838, 1850, 1885, 2094, 2106, 2141, 1584, 1593],
     [1601, 1606, 1633, 1638, 1840, 1849, 1857, 1862],
     [1889, 1894, 2096, 2105, 2113, 2118, 2145, 2150],
     [1582, 1594, 1629, 1838, 1850, 1885, 2094, 2106],
     [2141, 1584, 1593, 1601, 1606, 1633, 1638, 1840],
     [1849, 1857, 1862, 1889, 1894, 2096, 2105, 2113],
     [2118, 2145, 2150, 1582, 1589, 1594, 1629, 1838],
     [1845, 1850, 1885, 2094, 2101, 2106, 2141, 1584],
     [1588, 1590, 1593, 1601, 1606, 1633, 1638, 1840],
     [1844, 1846, 1849, 1857, 1862, 1889, 1894, 2096],
     [2100, 2102, 2105, 2113, 2118, 2145, 2150, 1582],
     [1594, 1629, 1838, 1850, 1885, 2094, 2106, 2141],
     [1584, 1589, 1590, 1593, 1601, 1606, 1633, 1638],
     [1840, 1845, 1846, 1849, 1857, 1862, 1889, 1894],
     [2096, 2101, 2102, 2105, 2113, 2118, 2145, 2150],
     [1582, 1594, 1629, 1838, 1850, 1885, 2094, 2106],
     [2141, 1584, 1593, 1601, 1606, 1633, 1638, 1840],
     [1849, 1857, 1862, 1889, 1894, 2096, 2105, 2113],
     [2118, 2145, 2150, 1582, 1594, 1629, 1838, 1850],
     [1885, 2094, 2106, 2141, 1584, 1593, 1601, 1606],
     [1633, 1638, 1840, 1849, 1857, 1862, 1889, 1894],
     [2096, 2105, 2113, 2118, 2145, 2150, 1594, 1629],
     [1850, 1885, 2106, 2141, 1584, 1593, 1601, 1606],
     [1633, 1638, 1840, 1849, 1857, 1862, 1889, 1894],
     [2096, 2105, 2113, 2118, 2145, 2150, 1584, 1593],
     [1601, 1606, 1633, 1638, 1840, 1849, 1857, 1862],
     [1889, 1894, 2096, 2105, 2113, 2118, 2145, 2150],
     [1584, 1593, 1601, 1606, 1633, 1638, 1840, 1849],
     [1857, 1862, 1889, 1894, 2096, 2105, 2113, 2118],
     [2145, 2150, 0, 556, 575, 1033, 1037, 1056],
     [1569, 1573, 1583, 1597, 1600, 1631, 1662, 1825],
     [1829, 1839, 1850, 1851, 1853, 1856, 1887, 1918],
     [2081, 2085, 2095, 2106, 2107, 2109, 2112, 2143],
     [2174, 1572, 1579, 1581, 1593, 1594, 1595, 1601],
     [1626, 1633, 1658, 1828, 1835, 1837, 1849, 1857],
     [1882, 1889, 1914, 2084, 2091, 2093, 2105, 2113],
     [2138, 2145, 2170, 1584, 1593, 1601, 1606, 1633],
     [1638, 1840, 1849, 1857, 1862, 1889, 1894, 2096],
     [2105, 2113, 2118, 2145, 2150, 1584, 1593, 1601],
     [1606, 1633, 1638, 1840, 1849, 1857, 1862, 1889],
     [1894, 2096, 2105, 2113, 2118, 2145, 2150, 0],
     [556, 575, 1033, 1037, 1056, 1569, 1573, 1597],
     [1627, 1631, 1662, 1825, 1829, 1851, 1853, 1883],
     [1887, 1918, 2081, 2085, 2107, 2109, 2139, 2143],
     [2174, 1572, 1579, 1581, 1595, 1600, 1626, 1633],
     [1658, 1828, 1835, 1837, 1850, 1856, 1882, 1889],
     [1914, 2084, 2091, 2093, 2106, 2112, 2138, 2145],
     [2170, 0, 547, 548, 550, 556, 559, 570],
     [571, 573, 575, 576, 1033, 1037, 1056, 1120],
     [1569, 1573, 1575, 1631, 1662, 1825, 1829, 1831],
     [1887, 1918, 2081, 2085, 2087, 2143, 2174, 552],
     [553, 1578, 1579, 1581, 1582, 1584, 1593, 1601],
     [1626, 1633, 1658, 1834, 1835, 1837, 1838, 1840],
     [1849, 1857, 1882, 1889, 1914, 2090, 2091, 2093],
     [2094, 2096, 2105, 2113, 2138, 2145, 2170, 0],
     [547, 548, 550, 556, 559, 570, 575, 576],
     [1033, 1037, 1056, 1120, 1569, 1573, 1575, 1595],
     [1597, 1631, 1662, 1825, 1829, 1831, 1851, 1853],
     [1887, 1918, 2081, 2085, 2087, 2107, 2109, 2143],
     [2174, 552, 553, 1578, 1579, 1581, 1582, 1584],
     [1593, 1601, 1626, 1633, 1658, 1834, 1835, 1837],
     [1838, 1840, 1849, 1857, 1882, 1889, 1914, 2090],
     [2091, 2093, 2094, 2096, 2105, 2113, 2138, 2145],
     [2170, 0, 1033, 1037, 1056, 1057, 1061, 1063],
     [1083, 1085, 1150, 1066, 1067, 1069, 1070, 1095],
     [1114, 1119, 1120, 1127, 1146, 1584, 1593, 1601],
     [1606, 1633, 1638, 1840, 1849, 1857, 1862, 1889],
     [1894, 2096, 2105, 2113, 2118, 2145, 2150, 0],
     [1033, 1037, 1056, 1057, 1061, 1063, 1083, 1085],
     [1150, 1066, 1067, 1069, 1070, 1095, 1114, 1119],
     [1120, 1127, 1146, 1584, 1593, 1601, 1606, 1633],
     [1638, 1840, 1849, 1857, 1862, 1889, 1894, 2096],
     [2105, 2113, 2118, 2145, 2150, 0, 547, 548],
     [550, 556, 559, 570, 571, 573, 575, 576],
     [1033, 1037, 1056, 1058, 1115, 1120, 1569, 1573],
     [1575, 1631, 1662, 1825, 1829, 1831, 1887, 1918],
     [2081, 2085, 2087, 2143, 2174, 552, 553, 1578]]"

definition sup_trans_keys_31 :: "int list list" where
  "sup_trans_keys_31 =
    [[1579, 1581, 1582, 1584, 1593, 1601, 1626, 1633],
     [1658, 1834, 1835, 1837, 1838, 1840, 1849, 1857],
     [1882, 1889, 1914, 2090, 2091, 2093, 2094, 2096],
     [2105, 2113, 2138, 2145, 2170, 0, 547, 548],
     [550, 556, 559, 570, 573, 575, 576, 1033],
     [1037, 1056, 1120, 1569, 1573, 1575, 1595, 1631],
     [1662, 1825, 1829, 1831, 1851, 1887, 1918, 2081],
     [2085, 2087, 2107, 2143, 2174, 552, 553, 1578],
     [1579, 1581, 1582, 1584, 1593, 1601, 1626, 1633],
     [1658, 1834, 1835, 1837, 1838, 1840, 1849, 1857],
     [1882, 1889, 1914, 2090, 2091, 2093, 2094, 2096],
     [2105, 2113, 2138, 2145, 2170, 0, 1033, 1037],
     [1056, 1057, 1061, 1063, 1083, 1150, 1066, 1067],
     [1069, 1070, 1095, 1114, 1119, 1120, 1127, 1146],
     [1584, 1593, 1601, 1606, 1633, 1638, 1840, 1849],
     [1857, 1862, 1889, 1894, 2096, 2105, 2113, 2118],
     [2145, 2150, 0, 1033, 1037, 1056, 1057, 1061],
     [1063, 1083, 1150, 1066, 1067, 1069, 1070, 1095],
     [1114, 1119, 1120, 1127, 1146, 1584, 1593, 1601],
     [1606, 1633, 1638, 1840, 1849, 1857, 1862, 1889],
     [1894, 2096, 2105, 2113, 2118, 2145, 2150, 1033],
     [1037, 1056, 1057, 1061, 1063, 1066, 1084, 1150],
     [1579, 1594, 1609, 1641, 1835, 1850, 1865, 1897],
     [2091, 2106, 2121, 2153, 1119, 1120, 1581, 1582],
     [1584, 1593, 1601, 1626, 1633, 1658, 1837, 1838],
     [1840, 1849, 1857, 1882, 1889, 1914, 2093, 2094],
     [2096, 2105, 2113, 2138, 2145, 2170, 1033, 1037],
     [1056, 1057, 1061, 1063, 1066, 1084, 1150, 1579],
     [1594, 1616, 1648, 1835, 1850, 1872, 1904, 2091],
     [2106, 2128, 2160, 1119, 1120, 1581, 1582, 1584],
     [1593, 1601, 1626, 1633, 1658, 1837, 1838, 1840],
     [1849, 1857, 1882, 1889, 1914, 2093, 2094, 2096],
     [2105, 2113, 2138, 2145, 2170, 1033, 1037, 1056],
     [1057, 1061, 1063, 1066, 1084, 1150, 1579, 1594],
     [1619, 1651, 1835, 1850, 1875, 1907, 2091, 2106],
     [2131, 2163, 1119, 1120, 1581, 1582, 1584, 1593],
     [1601, 1626, 1633, 1658, 1837, 1838, 1840, 1849],
     [1857, 1882, 1889, 1914, 2093, 2094, 2096, 2105],
     [2113, 2138, 2145, 2170, 556, 571, 575, 1569],
     [1573, 1584, 1585, 1586, 1597, 1627, 1631, 1662],
     [1825, 1829, 1840, 1841, 1842, 1853, 1883, 1887],
     [1918, 2081, 2085, 2096, 2097, 2098, 2109, 2139],
     [2143, 2174, 1571, 1579, 1581, 1583, 1587, 1593],
     [1601, 1626, 1633, 1658, 1827, 1835, 1837, 1839],
     [1843, 1849, 1857, 1882, 1889, 1914, 2083, 2091],
     [2093, 2095, 2099, 2105, 2113, 2138, 2145, 2170],
     [556, 571, 575, 1569, 1573, 1594, 1597, 1600],
     [1631, 1662, 1825, 1829, 1850, 1853, 1856, 1887],
     [1918, 2081, 2085, 2106, 2109, 2112, 2143, 2174],
     [1571, 1579, 1581, 1593, 1601, 1626, 1633, 1658],
     [1827, 1835, 1837, 1849, 1857, 1882, 1889, 1914],
     [2083, 2091, 2093, 2105, 2113, 2138, 2145, 2170],
     [1584, 1593, 1601, 1606, 1633, 1638, 1840, 1849],
     [1857, 1862, 1889, 1894, 2096, 2105, 2113, 2118],
     [2145, 2150, 1584, 1593, 1601, 1606, 1633, 1638],
     [1840, 1849, 1857, 1862, 1889, 1894, 2096, 2105],
     [2113, 2118, 2145, 2150, 556, 1569, 1573, 1597],
     [1600, 1631, 1662, 1825, 1829, 1853, 1856, 1887],
     [1918, 2081, 2085, 2109, 2112, 2143, 2174, 1572],
     [1579, 1581, 1582, 1584, 1593, 1601, 1626, 1633],
     [1658, 1828, 1835, 1837, 1838, 1840, 1849, 1857],
     [1882, 1889, 1914, 2084, 2091, 2093, 2094, 2096],
     [2105, 2113, 2138, 2145, 2170, 1584, 1593, 1601],
     [1606, 1633, 1638, 1840, 1849, 1857, 1862, 1889],
     [1894, 2096, 2105, 2113, 2118, 2145, 2150, 1584],
     [1593, 1601, 1606, 1633, 1638, 1840, 1849, 1857],
     [1862, 1889, 1894, 2096, 2105, 2113, 2118, 2145],
     [2150, 1584, 1585, 1586, 1627, 1840, 1841, 1842],
     [1883, 2096, 2097, 2098, 2139, 1587, 1593, 1601],
     [1626, 1633, 1658, 1843, 1849, 1857, 1882, 1889],
     [1914, 2099, 2105, 2113, 2138, 2145, 2170, 1581],
     [1582, 1631, 1837, 1838, 1887, 2093, 2094, 2143],
     [1584, 1593, 1601, 1626, 1633, 1658, 1840, 1849],
     [1857, 1882, 1889, 1914, 2096, 2105, 2113, 2138],
     [2145, 2170, 1581, 1631, 1837, 1887, 2093, 2143],
     [1584, 1593, 1601, 1626, 1633, 1658, 1840, 1849],
     [1857, 1882, 1889, 1914, 2096, 2105, 2113, 2138],
     [2145, 2170, 1581, 1582, 1631, 1837, 1838, 1887],
     [2093, 2094, 2143, 1584, 1593, 1601, 1626, 1633],
     [1658, 1840, 1849, 1857, 1882, 1889, 1914, 2096],
     [2105, 2113, 2138, 2145, 2170, 1584, 1593, 1601],
     [1626, 1633, 1658, 1840, 1849, 1857, 1882, 1889],
     [1914, 2096, 2105, 2113, 2138, 2145, 2170, 0],
     [575, 1033, 1037, 1056, 1581, 1582, 1594, 1595],
     [1631, 1837, 1838, 1850, 1851, 1887, 2093, 2094],
     [2106, 2107, 2143, 1584, 1593, 1601, 1626, 1633],
     [1658, 1840, 1849, 1857, 1882, 1889, 1914, 2096],
     [2105, 2113, 2138, 2145, 2170, 1581, 1631, 1837],
     [1887, 2093, 2143, 1584, 1593, 1601, 1626, 1633],
     [1658, 1840, 1849, 1857, 1882, 1889, 1914, 2096],
     [2105, 2113, 2138, 2145, 2170, 0, 575, 1033],
     [1037, 1056, 1594, 1595, 1850, 1851, 2106, 2107],
     [1584, 1593, 1601, 1626, 1633, 1658, 1840, 1849],
     [1857, 1882, 1889, 1914, 2096, 2105, 2113, 2138],
     [2145, 2170, 1584, 1590, 1840, 1846, 2096, 2102],
     [1585, 1589, 1591, 1593, 1841, 1845, 1847, 1849],
     [2097, 2101, 2103, 2105, 1584, 1840, 2096, 1585],
     [1593, 1841, 1849, 2097, 2105, 1584, 1840, 2096],
     [1585, 1593, 1841, 1849, 2097, 2105, 1585, 1593],
     [1841, 1849, 2097, 2105, 0, 575, 1033, 1037],
     [1056, 1595, 1851, 2107, 548, 550, 559, 570],
     [603, 605, 1033, 1037, 1056, 1120, 1569, 1573],
     [1575, 1612, 1615, 1620, 1631, 1644, 1647, 1652],
     [1662, 1825, 1829, 1831, 1887, 1918, 2081, 2085],
     [2087, 2124, 2127, 2132, 2143, 2156, 2159, 2164],
     [2174, 552, 553, 1578, 1579, 1581, 1582, 1584],
     [1593, 1601, 1626, 1633, 1658, 1834, 1835, 1837],
     [1838, 1840, 1849, 1857, 1882, 1889, 1914, 2090],
     [2091, 2093, 2094, 2096, 2105, 2113, 2138, 2145],
     [2170, 0, 548, 550, 559, 570, 575, 603],
     [605, 1033, 1037, 1056, 1120, 1569, 1573, 1575],
     [1595, 1597, 1631, 1662, 1825, 1829, 1831, 1851],
     [1853, 1887, 1918, 2081, 2085, 2087, 2107, 2109],
     [2143, 2174, 552, 553, 1578, 1579, 1581, 1582],
     [1584, 1593, 1601, 1626, 1633, 1658, 1834, 1835],
     [1837, 1838, 1840, 1849, 1857, 1882, 1889, 1914],
     [2090, 2091, 2093, 2094, 2096, 2105, 2113, 2138],
     [2145, 2170, 0, 1033, 1037, 1056, 1057, 1061],
     [1063, 1083, 1085, 1150, 1066, 1067, 1069, 1070],
     [1095, 1114, 1119, 1120, 1127, 1146, 1584, 1593],
     [1601, 1606, 1633, 1638, 1840, 1849, 1857, 1862],
     [1889, 1894, 2096, 2105, 2113, 2118, 2145, 2150],
     [0, 1033, 1037, 1056, 1057, 1061, 1063, 1083],
     [1085, 1150, 1066, 1067, 1069, 1070, 1095, 1114],
     [1119, 1120, 1127, 1146, 1584, 1593, 1601, 1606],
     [1633, 1638, 1840, 1849, 1857, 1862, 1889, 1894],
     [2096, 2105, 2113, 2118, 2145, 2150, 0, 548],
     [550, 559, 570, 571, 573, 575, 605, 1033],
     [1037, 1056, 1058, 1120, 1569, 1573, 1575, 1631],
     [1662, 1825, 1829, 1831, 1883, 1887, 1918, 2081],
     [2085, 2087, 2139, 2143, 2174, 552, 553, 1578],
     [1579, 1581, 1582, 1584, 1593, 1601, 1627, 1633],
     [1658, 1834, 1835, 1837, 1838, 1840, 1849, 1857],
     [1882, 1889, 1914, 2090, 2091, 2093, 2094, 2096],
     [2105, 2113, 2138, 2145, 2170, 0, 548, 550],
     [559, 570, 575, 603, 605, 1033, 1037, 1056],
     [1120, 1569, 1573, 1575, 1595, 1631, 1662, 1825],
     [1829, 1831, 1851, 1887, 1918, 2081, 2085, 2087],
     [2107, 2143, 2174, 552, 553, 1578, 1579, 1581],
     [1582, 1584, 1593, 1601, 1626, 1633, 1658, 1834],
     [1835, 1837, 1838, 1840, 1849, 1857, 1882, 1889],
     [1914, 2090, 2091, 2093, 2094, 2096, 2105, 2113],
     [2138, 2145, 2170, 0, 1033, 1037, 1056, 1057],
     [1061, 1063, 1083, 1150, 1066, 1067, 1069, 1070],
     [1095, 1114, 1119, 1120, 1127, 1146, 1584, 1593],
     [1601, 1606, 1633, 1638, 1840, 1849, 1857, 1862],
     [1889, 1894, 2096, 2105, 2113, 2118, 2145, 2150],
     [0, 1033, 1037, 1056, 1057, 1061, 1063, 1083],
     [1150, 1066, 1067, 1069, 1070, 1095, 1114, 1119],
     [1120, 1127, 1146, 1584, 1593, 1601, 1606, 1633]]"

definition sup_trans_keys_32 :: "int list list" where
  "sup_trans_keys_32 =
    [[1638, 1840, 1849, 1857, 1862, 1889, 1894, 2096],
     [2105, 2113, 2118, 2145, 2150, 0, 545, 549],
     [571, 575, 605, 607, 638, 1850, 2106, 548],
     [555, 557, 559, 583, 603, 615, 634, 1584],
     [1594, 1601, 1606, 1633, 1638, 1840, 1849, 1857],
     [1862, 1889, 1894, 2096, 2105, 2113, 2118, 2145],
     [2150, 0, 545, 549, 571, 575, 605, 607],
     [638, 1850, 2106, 548, 555, 557, 559, 583],
     [603, 615, 634, 1584, 1594, 1601, 1606, 1633],
     [1638, 1840, 1849, 1857, 1862, 1889, 1894, 2096],
     [2105, 2113, 2118, 2145, 2150, 0, 545, 549],
     [571, 575, 605, 607, 638, 1850, 2106, 548],
     [555, 557, 559, 583, 603, 615, 634, 1584],
     [1594, 1601, 1606, 1633, 1638, 1840, 1849, 1857],
     [1862, 1889, 1894, 2096, 2105, 2113, 2118, 2145],
     [2150, 0, 545, 549, 571, 575, 605, 607],
     [638, 1850, 2106, 548, 555, 557, 559, 583],
     [603, 615, 634, 1584, 1594, 1601, 1606, 1633],
     [1638, 1840, 1849, 1857, 1862, 1889, 1894, 2096],
     [2105, 2113, 2118, 2145, 2150, 0, 545, 549],
     [571, 575, 605, 607, 638, 1594, 1850, 2106],
     [548, 555, 557, 569, 577, 603, 609, 634],
     [0, 545, 549, 571, 575, 605, 607, 638],
     [1850, 2106, 548, 555, 557, 559, 583, 603],
     [615, 634, 1584, 1594, 1601, 1606, 1633, 1638],
     [1840, 1849, 1857, 1862, 1889, 1894, 2096, 2105],
     [2113, 2118, 2145, 2150, 0, 545, 549, 571],
     [575, 605, 607, 638, 1850, 2106, 548, 555],
     [557, 559, 583, 603, 615, 634, 1584, 1594],
     [1601, 1606, 1633, 1638, 1840, 1849, 1857, 1862],
     [1889, 1894, 2096, 2105, 2113, 2118, 2145, 2150],
     [0, 545, 549, 571, 575, 605, 607, 638],
     [1850, 2106, 548, 555, 557, 559, 583, 603],
     [615, 634, 1584, 1594, 1601, 1606, 1633, 1638],
     [1840, 1849, 1857, 1862, 1889, 1894, 2096, 2105],
     [2113, 2118, 2145, 2150, 0, 545, 549, 571],
     [575, 605, 607, 638, 1850, 2106, 548, 555],
     [557, 559, 583, 603, 615, 634, 1584, 1594],
     [1601, 1606, 1633, 1638, 1840, 1849, 1857, 1862],
     [1889, 1894, 2096, 2105, 2113, 2118, 2145, 2150],
     [0, 545, 549, 571, 575, 605, 607, 638],
     [1594, 1850, 2106, 548, 555, 557, 569, 577],
     [603, 609, 634, 0, 545, 549, 571, 575],
     [605, 607, 638, 1850, 2106, 548, 555, 557],
     [559, 583, 603, 615, 634, 1584, 1594, 1601],
     [1606, 1633, 1638, 1840, 1849, 1857, 1862, 1889],
     [1894, 2096, 2105, 2113, 2118, 2145, 2150, 0],
     [545, 549, 571, 575, 605, 607, 638, 1850],
     [2106, 548, 555, 557, 559, 583, 603, 615],
     [634, 1584, 1594, 1601, 1606, 1633, 1638, 1840],
     [1849, 1857, 1862, 1889, 1894, 2096, 2105, 2113],
     [2118, 2145, 2150, 0, 545, 549, 571, 575],
     [605, 607, 638, 1850, 2106, 548, 555, 557],
     [559, 583, 603, 615, 634, 1584, 1594, 1601],
     [1606, 1633, 1638, 1840, 1849, 1857, 1862, 1889],
     [1894, 2096, 2105, 2113, 2118, 2145, 2150, 0],
     [545, 549, 571, 575, 605, 607, 638, 1850],
     [2106, 548, 555, 557, 559, 583, 603, 615],
     [634, 1584, 1594, 1601, 1606, 1633, 1638, 1840],
     [1849, 1857, 1862, 1889, 1894, 2096, 2105, 2113],
     [2118, 2145, 2150, 0, 545, 549, 571, 575],
     [605, 607, 638, 1594, 1850, 2106, 548, 555],
     [557, 569, 577, 603, 609, 634, 0, 545],
     [549, 571, 575, 605, 607, 638, 1850, 2106],
     [548, 555, 557, 559, 583, 603, 615, 634],
     [1584, 1594, 1601, 1606, 1633, 1638, 1840, 1849],
     [1857, 1862, 1889, 1894, 2096, 2105, 2113, 2118],
     [2145, 2150, 0, 545, 549, 571, 575, 605],
     [607, 638, 1850, 2106, 548, 555, 557, 559],
     [583, 603, 615, 634, 1584, 1594, 1601, 1606],
     [1633, 1638, 1840, 1849, 1857, 1862, 1889, 1894],
     [2096, 2105, 2113, 2118, 2145, 2150, 0, 545],
     [549, 571, 575, 605, 607, 638, 1850, 2106],
     [548, 555, 557, 559, 583, 603, 615, 634],
     [1584, 1594, 1601, 1606, 1633, 1638, 1840, 1849],
     [1857, 1862, 1889, 1894, 2096, 2105, 2113, 2118],
     [2145, 2150, 0, 545, 549, 571, 575, 605],
     [607, 638, 1850, 2106, 548, 555, 557, 559],
     [583, 603, 615, 634, 1584, 1594, 1601, 1606],
     [1633, 1638, 1840, 1849, 1857, 1862, 1889, 1894],
     [2096, 2105, 2113, 2118, 2145, 2150, 0, 545],
     [549, 571, 575, 605, 607, 638, 1594, 1850],
     [2106, 548, 555, 557, 569, 577, 603, 609],
     [634, 0, 545, 549, 571, 575, 605, 607],
     [638, 1850, 2106, 548, 555, 557, 559, 583],
     [603, 615, 634, 1584, 1594, 1601, 1606, 1633],
     [1638, 1840, 1849, 1857, 1862, 1889, 1894, 2096],
     [2105, 2113, 2118, 2145, 2150, 0, 545, 549],
     [571, 575, 605, 607, 638, 1850, 2106, 548],
     [555, 557, 559, 583, 603, 615, 634, 1584],
     [1594, 1601, 1606, 1633, 1638, 1840, 1849, 1857],
     [1862, 1889, 1894, 2096, 2105, 2113, 2118, 2145],
     [2150, 0, 545, 549, 571, 575, 605, 607],
     [638, 1850, 2106, 548, 555, 557, 559, 583],
     [603, 615, 634, 1584, 1594, 1601, 1606, 1633],
     [1638, 1840, 1849, 1857, 1862, 1889, 1894, 2096],
     [2105, 2113, 2118, 2145, 2150, 0, 545, 549],
     [571, 575, 605, 607, 638, 1850, 2106, 548],
     [555, 557, 559, 583, 603, 615, 634, 1584],
     [1594, 1601, 1606, 1633, 1638, 1840, 1849, 1857],
     [1862, 1889, 1894, 2096, 2105, 2113, 2118, 2145],
     [2150, 0, 545, 549, 571, 575, 605, 607],
     [638, 1594, 1850, 2106, 548, 555, 557, 569],
     [577, 603, 609, 634, 0, 545, 549, 571],
     [575, 605, 607, 638, 1850, 2106, 548, 555],
     [557, 559, 583, 603, 615, 634, 1584, 1594],
     [1601, 1606, 1633, 1638, 1840, 1849, 1857, 1862],
     [1889, 1894, 2096, 2105, 2113, 2118, 2145, 2150],
     [0, 545, 549, 571, 575, 605, 607, 638],
     [1850, 2106, 548, 555, 557, 559, 583, 603],
     [615, 634, 1584, 1594, 1601, 1606, 1633, 1638],
     [1840, 1849, 1857, 1862, 1889, 1894, 2096, 2105],
     [2113, 2118, 2145, 2150, 0, 545, 549, 571],
     [575, 605, 607, 638, 1850, 2106, 548, 555],
     [557, 559, 583, 603, 615, 634, 1584, 1594],
     [1601, 1606, 1633, 1638, 1840, 1849, 1857, 1862],
     [1889, 1894, 2096, 2105, 2113, 2118, 2145, 2150],
     [0, 545, 549, 571, 575, 605, 607, 638],
     [1850, 2106, 548, 555, 557, 559, 583, 603],
     [615, 634, 1584, 1594, 1601, 1606, 1633, 1638],
     [1840, 1849, 1857, 1862, 1889, 1894, 2096, 2105],
     [2113, 2118, 2145, 2150, 0, 545, 549, 571],
     [575, 605, 607, 638, 1594, 1850, 2106, 548],
     [555, 557, 569, 577, 603, 609, 634, 0],
     [545, 549, 571, 575, 605, 607, 638, 1840],
     [1841, 1842, 1850, 2096, 2097, 2098, 2106, 548],
     [555, 557, 559, 583, 603, 615, 634, 1584],
     [1594, 1601, 1606, 1633, 1638, 1843, 1849, 1857],
     [1862, 1889, 1894, 2099, 2105, 2113, 2118, 2145],
     [2150, 0, 545, 549, 557, 559, 571, 575],
     [605, 607, 638, 1582, 1838, 1850, 2094, 2106],
     [548, 555, 583, 603, 615, 634, 1584, 1594],
     [1601, 1606, 1633, 1638, 1840, 1849, 1857, 1862],
     [1889, 1894, 2096, 2105, 2113, 2118, 2145, 2150],
     [0, 545, 549, 570, 571, 575, 605, 607],
     [638, 1840, 1841, 1842, 2096, 2097, 2098, 548],
     [555, 557, 559, 577, 603, 609, 634, 1584],
     [1593, 1843, 1849, 2099, 2105, 0, 545, 549],
     [557, 571, 575, 605, 607, 638, 1582, 1838],
     [2094, 548, 555, 559, 570, 577, 603, 609],
     [634, 0, 545, 549, 570, 571, 575, 605],
     [607, 638, 1840, 1841, 1842, 2096, 2097, 2098],
     [548, 555, 557, 559, 577, 603, 609, 634],
     [1584, 1593, 1843, 1849, 2099, 2105, 0, 545],
     [549, 557, 571, 575, 605, 607, 638, 1582],
     [1838, 2094, 548, 555, 559, 570, 577, 603],
     [609, 634, 0, 545, 549, 570, 571, 575],
     [605, 607, 638, 1840, 1841, 1842, 2096, 2097],
     [2098, 548, 555, 557, 559, 577, 603, 609],
     [634, 1584, 1593, 1843, 1849, 2099, 2105, 0]]"

definition sup_trans_keys_33 :: "int list list" where
  "sup_trans_keys_33 =
    [[545, 549, 571, 575, 607, 638, 1629, 1885],
     [2141, 548, 555, 557, 570, 577, 603, 609],
     [634, 0, 545, 549, 575, 605, 607, 638],
     [1033, 1037, 1056, 1595, 1851, 2107, 548, 555],
     [557, 570, 577, 603, 609, 634, 0, 545],
     [549, 570, 571, 575, 607, 638, 1629, 1885],
     [2141, 548, 555, 557, 559, 577, 603, 609],
     [634, 1584, 1593, 1840, 1849, 2096, 2105, 0],
     [545, 549, 570, 571, 575, 607, 638, 1629],
     [1885, 2141, 548, 555, 557, 559, 577, 603],
     [609, 634, 1584, 1593, 1840, 1849, 2096, 2105],
     [0, 545, 549, 570, 571, 575, 607, 638],
     [1629, 1845, 1885, 2101, 2141, 548, 555, 557],
     [559, 577, 603, 609, 634, 1584, 1593, 1840],
     [1844, 1846, 1849, 2096, 2100, 2102, 2105, 0],
     [545, 549, 571, 575, 607, 638, 1629, 1885],
     [2141, 548, 555, 557, 559, 566, 570, 577],
     [603, 609, 634, 1584, 1589, 1840, 1845, 2096],
     [2101, 0, 545, 549, 557, 559, 570, 571],
     [575, 605, 607, 638, 1582, 1838, 2094, 548],
     [555, 577, 603, 609, 634, 1584, 1593, 1840],
     [1849, 2096, 2105, 0, 545, 549, 557, 559],
     [570, 571, 575, 605, 607, 638, 1582, 1838],
     [2094, 548, 555, 577, 603, 609, 634, 1584],
     [1593, 1840, 1849, 2096, 2105, 0, 545, 549],
     [557, 559, 570, 571, 575, 605, 607, 638],
     [1582, 1838, 1845, 2094, 2101, 548, 555, 577],
     [603, 609, 634, 1584, 1593, 1840, 1844, 1846],
     [1849, 2096, 2100, 2102, 2105, 0, 545, 549],
     [557, 559, 571, 575, 605, 607, 638, 1582],
     [1838, 2094, 548, 555, 566, 570, 577, 603],
     [609, 634, 1584, 1589, 1840, 1845, 2096, 2101],
     [0, 545, 549, 557, 559, 570, 571, 575],
     [605, 607, 638, 1582, 1838, 2094, 548, 555],
     [577, 603, 609, 634, 1584, 1593, 1840, 1849],
     [2096, 2105, 0, 545, 549, 557, 559, 570],
     [571, 575, 605, 607, 638, 1582, 1838, 2094],
     [548, 555, 577, 603, 609, 634, 1584, 1593],
     [1840, 1849, 2096, 2105, 0, 545, 549, 557],
     [559, 570, 571, 575, 605, 607, 638, 1582],
     [1838, 1845, 2094, 2101, 548, 555, 577, 603],
     [609, 634, 1584, 1593, 1840, 1844, 1846, 1849],
     [2096, 2100, 2102, 2105, 0, 545, 549, 557],
     [559, 571, 575, 605, 607, 638, 1582, 1838],
     [2094, 548, 555, 566, 570, 577, 603, 609],
     [634, 1584, 1589, 1840, 1845, 2096, 2101, 0],
     [545, 549, 571, 575, 605, 607, 638, 1850],
     [2106, 548, 555, 557, 559, 583, 603, 615],
     [634, 1584, 1594, 1601, 1606, 1633, 1638, 1840],
     [1849, 1857, 1862, 1889, 1894, 2096, 2105, 2113],
     [2118, 2145, 2150, 0, 545, 549, 571, 575],
     [605, 607, 638, 1850, 2106, 548, 555, 557],
     [559, 583, 603, 615, 634, 1584, 1594, 1601],
     [1606, 1633, 1638, 1840, 1849, 1857, 1862, 1889],
     [1894, 2096, 2105, 2113, 2118, 2145, 2150, 0],
     [545, 549, 571, 575, 605, 607, 638, 1594],
     [1850, 2106, 548, 555, 557, 569, 577, 603],
     [609, 634, 0, 545, 549, 571, 575, 605],
     [607, 638, 1850, 2106, 548, 555, 557, 559],
     [583, 603, 615, 634, 1584, 1594, 1601, 1606],
     [1633, 1638, 1840, 1849, 1857, 1862, 1889, 1894],
     [2096, 2105, 2113, 2118, 2145, 2150, 0, 545],
     [549, 570, 571, 575, 607, 638, 1629, 1885],
     [2141, 548, 555, 557, 559, 583, 603, 615],
     [634, 1584, 1593, 1601, 1606, 1633, 1638, 1840],
     [1849, 1857, 1862, 1889, 1894, 2096, 2105, 2113],
     [2118, 2145, 2150, 0, 545, 549, 570, 571],
     [575, 607, 638, 1629, 1885, 2141, 548, 555],
     [557, 559, 583, 603, 615, 634, 1584, 1593],
     [1601, 1606, 1633, 1638, 1840, 1849, 1857, 1862],
     [1889, 1894, 2096, 2105, 2113, 2118, 2145, 2150],
     [0, 545, 549, 570, 571, 575, 607, 638],
     [1629, 1885, 2141, 548, 555, 557, 559, 583],
     [603, 615, 634, 1584, 1593, 1601, 1606, 1633],
     [1638, 1840, 1849, 1857, 1862, 1889, 1894, 2096],
     [2105, 2113, 2118, 2145, 2150, 0, 545, 549],
     [557, 559, 571, 575, 605, 607, 638, 1582],
     [1838, 1850, 2094, 2106, 548, 555, 583, 603],
     [615, 634, 1584, 1594, 1601, 1606, 1633, 1638],
     [1840, 1849, 1857, 1862, 1889, 1894, 2096, 2105],
     [2113, 2118, 2145, 2150, 0, 545, 549, 557],
     [559, 571, 575, 605, 607, 638, 1582, 1838],
     [1850, 2094, 2106, 548, 555, 583, 603, 615],
     [634, 1584, 1594, 1601, 1606, 1633, 1638, 1840],
     [1849, 1857, 1862, 1889, 1894, 2096, 2105, 2113],
     [2118, 2145, 2150, 0, 545, 549, 557, 559],
     [571, 575, 605, 607, 638, 1582, 1838, 1850],
     [2094, 2106, 548, 555, 583, 603, 615, 634],
     [1584, 1594, 1601, 1606, 1633, 1638, 1840, 1849],
     [1857, 1862, 1889, 1894, 2096, 2105, 2113, 2118],
     [2145, 2150, 0, 545, 549, 557, 559, 571],
     [575, 605, 607, 638, 1582, 1838, 1845, 1850],
     [2094, 2101, 2106, 548, 555, 583, 603, 615],
     [634, 1584, 1594, 1601, 1606, 1633, 1638, 1840],
     [1844, 1846, 1849, 1857, 1862, 1889, 1894, 2096],
     [2100, 2102, 2105, 2113, 2118, 2145, 2150, 0],
     [545, 549, 557, 559, 571, 575, 605, 607],
     [638, 1582, 1838, 1850, 2094, 2106, 548, 555],
     [583, 603, 615, 634, 1584, 1594, 1601, 1606],
     [1633, 1638, 1840, 1845, 1846, 1849, 1857, 1862],
     [1889, 1894, 2096, 2101, 2102, 2105, 2113, 2118],
     [2145, 2150, 0, 545, 549, 557, 559, 571],
     [575, 605, 607, 638, 1582, 1838, 1850, 2094],
     [2106, 548, 555, 583, 603, 615, 634, 1584],
     [1594, 1601, 1606, 1633, 1638, 1840, 1849, 1857],
     [1862, 1889, 1894, 2096, 2105, 2113, 2118, 2145],
     [2150, 0, 545, 549, 557, 559, 571, 575],
     [605, 607, 638, 1582, 1838, 1850, 2094, 2106],
     [548, 555, 583, 603, 615, 634, 1584, 1594],
     [1601, 1606, 1633, 1638, 1840, 1849, 1857, 1862],
     [1889, 1894, 2096, 2105, 2113, 2118, 2145, 2150],
     [0, 545, 549, 570, 571, 575, 607, 638],
     [1629, 1885, 2141, 548, 555, 557, 559, 583],
     [603, 615, 634, 1584, 1593, 1601, 1606, 1633],
     [1638, 1840, 1849, 1857, 1862, 1889, 1894, 2096],
     [2105, 2113, 2118, 2145, 2150, 0, 545, 549],
     [571, 575, 605, 607, 638, 1850, 2106, 548],
     [555, 557, 559, 583, 603, 615, 634, 1584],
     [1594, 1601, 1606, 1633, 1638, 1840, 1849, 1857],
     [1862, 1889, 1894, 2096, 2105, 2113, 2118, 2145],
     [2150, 0, 545, 549, 570, 571, 575, 607],
     [638, 1629, 1840, 1841, 1842, 1885, 2096, 2097],
     [2098, 2141, 548, 555, 557, 559, 583, 603],
     [615, 634, 1584, 1593, 1601, 1606, 1633, 1638],
     [1843, 1849, 1857, 1862, 1889, 1894, 2099, 2105],
     [2113, 2118, 2145, 2150, 0, 545, 549, 557],
     [559, 571, 575, 607, 638, 1582, 1629, 1838],
     [1850, 1885, 2094, 2106, 2141, 548, 555, 583],
     [603, 615, 634, 1584, 1594, 1601, 1606, 1633],
     [1638, 1840, 1849, 1857, 1862, 1889, 1894, 2096],
     [2105, 2113, 2118, 2145, 2150, 0, 545, 549],
     [571, 575, 607, 638, 1629, 1850, 1885, 2106],
     [2141, 548, 555, 557, 559, 583, 603, 615],
     [634, 1584, 1594, 1601, 1606, 1633, 1638, 1840],
     [1849, 1857, 1862, 1889, 1894, 2096, 2105, 2113],
     [2118, 2145, 2150, 0, 545, 549, 571, 575],
     [607, 638, 1629, 1850, 1885, 2106, 2141, 548],
     [555, 557, 559, 583, 603, 615, 634, 1584],
     [1594, 1601, 1606, 1633, 1638, 1840, 1849, 1857],
     [1862, 1889, 1894, 2096, 2105, 2113, 2118, 2145],
     [2150, 0, 545, 549, 571, 575, 607, 638],
     [1594, 1629, 1850, 1885, 2106, 2141, 548, 555],
     [557, 569, 577, 603, 609, 634, 0, 545],
     [549, 570, 571, 575, 605, 607, 638, 548],
     [555, 557, 559, 583, 603, 615, 634, 1584],
     [1593, 1601, 1606, 1633, 1638, 1840, 1849, 1857],
     [1862, 1889, 1894, 2096, 2105, 2113, 2118, 2145],
     [2150, 0, 545, 549, 557, 559, 571, 575],
     [607, 638, 1582, 1629, 1838, 1850, 1885, 2094],
     [2106, 2141, 548, 555, 583, 603, 615, 634]]"

definition sup_trans_keys_34 :: "int list list" where
  "sup_trans_keys_34 =
    [[1584, 1594, 1601, 1606, 1633, 1638, 1840, 1849],
     [1857, 1862, 1889, 1894, 2096, 2105, 2113, 2118],
     [2145, 2150, 0, 545, 549, 557, 559, 571],
     [575, 607, 638, 1582, 1629, 1838, 1850, 1885],
     [2094, 2106, 2141, 548, 555, 583, 603, 615],
     [634, 1584, 1594, 1601, 1606, 1633, 1638, 1840],
     [1849, 1857, 1862, 1889, 1894, 2096, 2105, 2113],
     [2118, 2145, 2150, 0, 545, 549, 557, 559],
     [571, 575, 607, 638, 1582, 1629, 1838, 1850],
     [1885, 2094, 2106, 2141, 548, 555, 583, 603],
     [615, 634, 1584, 1594, 1601, 1606, 1633, 1638],
     [1840, 1849, 1857, 1862, 1889, 1894, 2096, 2105],
     [2113, 2118, 2145, 2150, 0, 545, 549, 557],
     [559, 571, 575, 607, 638, 1582, 1629, 1838],
     [1845, 1850, 1885, 2094, 2101, 2106, 2141, 548],
     [555, 583, 603, 615, 634, 1584, 1594, 1601],
     [1606, 1633, 1638, 1840, 1844, 1846, 1849, 1857],
     [1862, 1889, 1894, 2096, 2100, 2102, 2105, 2113],
     [2118, 2145, 2150, 0, 545, 549, 557, 559],
     [571, 575, 607, 638, 1582, 1629, 1838, 1850],
     [1885, 2094, 2106, 2141, 548, 555, 583, 603],
     [615, 634, 1584, 1594, 1601, 1606, 1633, 1638],
     [1840, 1845, 1846, 1849, 1857, 1862, 1889, 1894],
     [2096, 2101, 2102, 2105, 2113, 2118, 2145, 2150],
     [0, 545, 549, 557, 559, 571, 575, 607],
     [638, 1582, 1629, 1838, 1850, 1885, 2094, 2106],
     [2141, 548, 555, 583, 603, 615, 634, 1584],
     [1594, 1601, 1606, 1633, 1638, 1840, 1849, 1857],
     [1862, 1889, 1894, 2096, 2105, 2113, 2118, 2145],
     [2150, 0, 545, 549, 557, 559, 571, 575],
     [607, 638, 1582, 1629, 1838, 1850, 1885, 2094],
     [2106, 2141, 548, 555, 583, 603, 615, 634],
     [1584, 1594, 1601, 1606, 1633, 1638, 1840, 1849],
     [1857, 1862, 1889, 1894, 2096, 2105, 2113, 2118],
     [2145, 2150, 0, 545, 549, 571, 575, 607],
     [638, 1629, 1850, 1885, 2106, 2141, 548, 555],
     [557, 559, 583, 603, 615, 634, 1584, 1594],
     [1601, 1606, 1633, 1638, 1840, 1849, 1857, 1862],
     [1889, 1894, 2096, 2105, 2113, 2118, 2145, 2150],
     [0, 545, 549, 570, 571, 575, 607, 638],
     [1629, 1840, 1841, 1842, 1885, 2096, 2097, 2098],
     [2141, 548, 555, 557, 559, 583, 603, 615],
     [634, 1584, 1593, 1601, 1606, 1633, 1638, 1843],
     [1849, 1857, 1862, 1889, 1894, 2099, 2105, 2113],
     [2118, 2145, 2150, 0, 545, 549, 557, 559],
     [571, 575, 607, 638, 1582, 1629, 1838, 1850],
     [1885, 2094, 2106, 2141, 548, 555, 583, 603],
     [615, 634, 1584, 1594, 1601, 1606, 1633, 1638],
     [1840, 1849, 1857, 1862, 1889, 1894, 2096, 2105],
     [2113, 2118, 2145, 2150, 0, 545, 549, 571],
     [575, 607, 638, 1629, 1850, 1885, 2106, 2141],
     [548, 555, 557, 559, 583, 603, 615, 634],
     [1584, 1594, 1601, 1606, 1633, 1638, 1840, 1849],
     [1857, 1862, 1889, 1894, 2096, 2105, 2113, 2118],
     [2145, 2150, 0, 545, 549, 571, 575, 607],
     [638, 1629, 1850, 1885, 2106, 2141, 548, 555],
     [557, 559, 583, 603, 615, 634, 1584, 1594],
     [1601, 1606, 1633, 1638, 1840, 1849, 1857, 1862],
     [1889, 1894, 2096, 2105, 2113, 2118, 2145, 2150],
     [0, 545, 549, 571, 575, 607, 638, 1594],
     [1629, 1850, 1885, 2106, 2141, 548, 555, 557],
     [569, 577, 603, 609, 634, 0, 545, 549],
     [570, 571, 575, 605, 607, 638, 1840, 1841],
     [1842, 2096, 2097, 2098, 548, 555, 557, 559],
     [583, 603, 615, 634, 1584, 1593, 1601, 1606],
     [1633, 1638, 1843, 1849, 1857, 1862, 1889, 1894],
     [2099, 2105, 2113, 2118, 2145, 2150, 0, 545],
     [549, 557, 559, 571, 575, 607, 638, 1582],
     [1629, 1838, 1850, 1885, 2094, 2106, 2141, 548],
     [555, 583, 603, 615, 634, 1584, 1594, 1601],
     [1606, 1633, 1638, 1840, 1849, 1857, 1862, 1889],
     [1894, 2096, 2105, 2113, 2118, 2145, 2150, 0],
     [545, 549, 557, 559, 571, 575, 607, 638],
     [1582, 1629, 1838, 1850, 1885, 2094, 2106, 2141],
     [548, 555, 583, 603, 615, 634, 1584, 1594],
     [1601, 1606, 1633, 1638, 1840, 1849, 1857, 1862],
     [1889, 1894, 2096, 2105, 2113, 2118, 2145, 2150],
     [0, 545, 549, 557, 559, 571, 575, 607],
     [638, 1582, 1629, 1838, 1850, 1885, 2094, 2106],
     [2141, 548, 555, 583, 603, 615, 634, 1584],
     [1594, 1601, 1606, 1633, 1638, 1840, 1849, 1857],
     [1862, 1889, 1894, 2096, 2105, 2113, 2118, 2145],
     [2150, 0, 545, 549, 557, 559, 571, 575],
     [607, 638, 1582, 1629, 1838, 1845, 1850, 1885],
     [2094, 2101, 2106, 2141, 548, 555, 583, 603],
     [615, 634, 1584, 1594, 1601, 1606, 1633, 1638],
     [1840, 1844, 1846, 1849, 1857, 1862, 1889, 1894],
     [2096, 2100, 2102, 2105, 2113, 2118, 2145, 2150],
     [0, 545, 549, 557, 559, 571, 575, 607],
     [638, 1582, 1629, 1838, 1850, 1885, 2094, 2106],
     [2141, 548, 555, 583, 603, 615, 634, 1584],
     [1594, 1601, 1606, 1633, 1638, 1840, 1845, 1846],
     [1849, 1857, 1862, 1889, 1894, 2096, 2101, 2102],
     [2105, 2113, 2118, 2145, 2150, 0, 545, 549],
     [557, 559, 571, 575, 607, 638, 1582, 1629],
     [1838, 1850, 1885, 2094, 2106, 2141, 548, 555],
     [583, 603, 615, 634, 1584, 1594, 1601, 1606],
     [1633, 1638, 1840, 1849, 1857, 1862, 1889, 1894],
     [2096, 2105, 2113, 2118, 2145, 2150, 0, 545],
     [549, 557, 559, 571, 575, 607, 638, 1582],
     [1629, 1838, 1850, 1885, 2094, 2106, 2141, 548],
     [555, 583, 603, 615, 634, 1584, 1594, 1601],
     [1606, 1633, 1638, 1840, 1849, 1857, 1862, 1889],
     [1894, 2096, 2105, 2113, 2118, 2145, 2150, 0],
     [545, 549, 571, 575, 607, 638, 1629, 1850],
     [1885, 2106, 2141, 548, 555, 557, 559, 583],
     [603, 615, 634, 1584, 1594, 1601, 1606, 1633],
     [1638, 1840, 1849, 1857, 1862, 1889, 1894, 2096],
     [2105, 2113, 2118, 2145, 2150, 0, 545, 549],
     [570, 571, 575, 607, 638, 1629, 1840, 1841],
     [1842, 1885, 2096, 2097, 2098, 2141, 548, 555],
     [557, 559, 583, 603, 615, 634, 1584, 1593],
     [1601, 1606, 1633, 1638, 1843, 1849, 1857, 1862],
     [1889, 1894, 2099, 2105, 2113, 2118, 2145, 2150],
     [0, 545, 549, 557, 559, 571, 575, 607],
     [638, 1582, 1629, 1838, 1850, 1885, 2094, 2106],
     [2141, 548, 555, 583, 603, 615, 634, 1584],
     [1594, 1601, 1606, 1633, 1638, 1840, 1849, 1857],
     [1862, 1889, 1894, 2096, 2105, 2113, 2118, 2145],
     [2150, 0, 545, 549, 571, 575, 607, 638],
     [1629, 1850, 1885, 2106, 2141, 548, 555, 557],
     [559, 583, 603, 615, 634, 1584, 1594, 1601],
     [1606, 1633, 1638, 1840, 1849, 1857, 1862, 1889],
     [1894, 2096, 2105, 2113, 2118, 2145, 2150, 0],
     [545, 549, 571, 575, 607, 638, 1629, 1850],
     [1885, 2106, 2141, 548, 555, 557, 559, 583],
     [603, 615, 634, 1584, 1594, 1601, 1606, 1633],
     [1638, 1840, 1849, 1857, 1862, 1889, 1894, 2096],
     [2105, 2113, 2118, 2145, 2150, 0, 545, 549],
     [571, 575, 607, 638, 1594, 1629, 1850, 1885],
     [2106, 2141, 548, 555, 557, 569, 577, 603],
     [609, 634, 0, 545, 549, 570, 571, 575],
     [605, 607, 638, 1840, 1841, 1842, 2096, 2097],
     [2098, 548, 555, 557, 559, 583, 603, 615],
     [634, 1584, 1593, 1601, 1606, 1633, 1638, 1843],
     [1849, 1857, 1862, 1889, 1894, 2099, 2105, 2113],
     [2118, 2145, 2150, 0, 545, 549, 557, 559],
     [571, 575, 607, 638, 1582, 1629, 1838, 1850],
     [1885, 2094, 2106, 2141, 548, 555, 583, 603],
     [615, 634, 1584, 1594, 1601, 1606, 1633, 1638],
     [1840, 1849, 1857, 1862, 1889, 1894, 2096, 2105],
     [2113, 2118, 2145, 2150, 0, 545, 549, 557],
     [559, 571, 575, 607, 638, 1582, 1629, 1838],
     [1850, 1885, 2094, 2106, 2141, 548, 555, 583],
     [603, 615, 634, 1584, 1594, 1601, 1606, 1633],
     [1638, 1840, 1849, 1857, 1862, 1889, 1894, 2096],
     [2105, 2113, 2118, 2145, 2150, 0, 545, 549],
     [557, 559, 571, 575, 607, 638, 1582, 1629],
     [1838, 1850, 1885, 2094, 2106, 2141, 548, 555],
     [583, 603, 615, 634, 1584, 1594, 1601, 1606]]"

definition sup_trans_keys_35 :: "int list list" where
  "sup_trans_keys_35 =
    [[1633, 1638, 1840, 1849, 1857, 1862, 1889, 1894],
     [2096, 2105, 2113, 2118, 2145, 2150, 0, 545],
     [549, 557, 559, 571, 575, 607, 638, 1582],
     [1629, 1838, 1845, 1850, 1885, 2094, 2101, 2106],
     [2141, 548, 555, 583, 603, 615, 634, 1584],
     [1594, 1601, 1606, 1633, 1638, 1840, 1844, 1846],
     [1849, 1857, 1862, 1889, 1894, 2096, 2100, 2102],
     [2105, 2113, 2118, 2145, 2150, 0, 545, 549],
     [557, 559, 571, 575, 607, 638, 1582, 1629],
     [1838, 1850, 1885, 2094, 2106, 2141, 548, 555],
     [583, 603, 615, 634, 1584, 1594, 1601, 1606],
     [1633, 1638, 1840, 1845, 1846, 1849, 1857, 1862],
     [1889, 1894, 2096, 2101, 2102, 2105, 2113, 2118],
     [2145, 2150, 0, 545, 549, 557, 559, 571],
     [575, 607, 638, 1582, 1629, 1838, 1850, 1885],
     [2094, 2106, 2141, 548, 555, 583, 603, 615],
     [634, 1584, 1594, 1601, 1606, 1633, 1638, 1840],
     [1849, 1857, 1862, 1889, 1894, 2096, 2105, 2113],
     [2118, 2145, 2150, 0, 545, 549, 557, 559],
     [571, 575, 607, 638, 1582, 1629, 1838, 1850],
     [1885, 2094, 2106, 2141, 548, 555, 583, 603],
     [615, 634, 1584, 1594, 1601, 1606, 1633, 1638],
     [1840, 1849, 1857, 1862, 1889, 1894, 2096, 2105],
     [2113, 2118, 2145, 2150, 0, 545, 549, 571],
     [575, 607, 638, 1629, 1850, 1885, 2106, 2141],
     [548, 555, 557, 559, 583, 603, 615, 634],
     [1584, 1594, 1601, 1606, 1633, 1638, 1840, 1849],
     [1857, 1862, 1889, 1894, 2096, 2105, 2113, 2118],
     [2145, 2150, 0, 545, 549, 570, 571, 575],
     [607, 638, 1629, 1840, 1841, 1842, 1885, 2096],
     [2097, 2098, 2141, 548, 555, 557, 559, 583],
     [603, 615, 634, 1584, 1593, 1601, 1606, 1633],
     [1638, 1843, 1849, 1857, 1862, 1889, 1894, 2099],
     [2105, 2113, 2118, 2145, 2150, 0, 545, 549],
     [557, 559, 571, 575, 607, 638, 1582, 1629],
     [1838, 1850, 1885, 2094, 2106, 2141, 548, 555],
     [583, 603, 615, 634, 1584, 1594, 1601, 1606],
     [1633, 1638, 1840, 1849, 1857, 1862, 1889, 1894],
     [2096, 2105, 2113, 2118, 2145, 2150, 0, 545],
     [549, 571, 575, 607, 638, 1629, 1850, 1885],
     [2106, 2141, 548, 555, 557, 559, 583, 603],
     [615, 634, 1584, 1594, 1601, 1606, 1633, 1638],
     [1840, 1849, 1857, 1862, 1889, 1894, 2096, 2105],
     [2113, 2118, 2145, 2150, 0, 545, 549, 571],
     [575, 607, 638, 1629, 1850, 1885, 2106, 2141],
     [548, 555, 557, 559, 583, 603, 615, 634],
     [1584, 1594, 1601, 1606, 1633, 1638, 1840, 1849],
     [1857, 1862, 1889, 1894, 2096, 2105, 2113, 2118],
     [2145, 2150, 0, 545, 549, 571, 575, 607],
     [638, 1594, 1629, 1850, 1885, 2106, 2141, 548],
     [555, 557, 569, 577, 603, 609, 634, 0],
     [545, 549, 570, 571, 575, 605, 607, 638],
     [1840, 1841, 1842, 2096, 2097, 2098, 548, 555],
     [557, 559, 583, 603, 615, 634, 1584, 1593],
     [1601, 1606, 1633, 1638, 1843, 1849, 1857, 1862],
     [1889, 1894, 2099, 2105, 2113, 2118, 2145, 2150],
     [0, 545, 549, 557, 559, 571, 575, 607],
     [638, 1582, 1629, 1838, 1850, 1885, 2094, 2106],
     [2141, 548, 555, 583, 603, 615, 634, 1584],
     [1594, 1601, 1606, 1633, 1638, 1840, 1849, 1857],
     [1862, 1889, 1894, 2096, 2105, 2113, 2118, 2145],
     [2150, 0, 545, 549, 557, 559, 571, 575],
     [607, 638, 1582, 1629, 1838, 1850, 1885, 2094],
     [2106, 2141, 548, 555, 583, 603, 615, 634],
     [1584, 1594, 1601, 1606, 1633, 1638, 1840, 1849],
     [1857, 1862, 1889, 1894, 2096, 2105, 2113, 2118],
     [2145, 2150, 0, 545, 549, 557, 559, 571],
     [575, 607, 638, 1582, 1629, 1838, 1850, 1885],
     [2094, 2106, 2141, 548, 555, 583, 603, 615],
     [634, 1584, 1594, 1601, 1606, 1633, 1638, 1840],
     [1849, 1857, 1862, 1889, 1894, 2096, 2105, 2113],
     [2118, 2145, 2150, 0, 545, 549, 557, 559],
     [571, 575, 607, 638, 1582, 1629, 1838, 1845],
     [1850, 1885, 2094, 2101, 2106, 2141, 548, 555],
     [583, 603, 615, 634, 1584, 1594, 1601, 1606],
     [1633, 1638, 1840, 1844, 1846, 1849, 1857, 1862],
     [1889, 1894, 2096, 2100, 2102, 2105, 2113, 2118],
     [2145, 2150, 0, 545, 549, 557, 559, 571],
     [575, 607, 638, 1582, 1629, 1838, 1850, 1885],
     [2094, 2106, 2141, 548, 555, 583, 603, 615],
     [634, 1584, 1594, 1601, 1606, 1633, 1638, 1840],
     [1845, 1846, 1849, 1857, 1862, 1889, 1894, 2096],
     [2101, 2102, 2105, 2113, 2118, 2145, 2150, 0],
     [545, 549, 557, 559, 571, 575, 607, 638],
     [1582, 1629, 1838, 1850, 1885, 2094, 2106, 2141],
     [548, 555, 583, 603, 615, 634, 1584, 1594],
     [1601, 1606, 1633, 1638, 1840, 1849, 1857, 1862],
     [1889, 1894, 2096, 2105, 2113, 2118, 2145, 2150],
     [0, 545, 549, 557, 559, 571, 575, 607],
     [638, 1582, 1629, 1838, 1850, 1885, 2094, 2106],
     [2141, 548, 555, 583, 603, 615, 634, 1584],
     [1594, 1601, 1606, 1633, 1638, 1840, 1849, 1857],
     [1862, 1889, 1894, 2096, 2105, 2113, 2118, 2145],
     [2150, 0, 545, 549, 571, 575, 607, 638],
     [1629, 1850, 1885, 2106, 2141, 548, 555, 557],
     [559, 583, 603, 615, 634, 1584, 1594, 1601],
     [1606, 1633, 1638, 1840, 1849, 1857, 1862, 1889],
     [1894, 2096, 2105, 2113, 2118, 2145, 2150, 0],
     [545, 549, 570, 571, 575, 607, 638, 1629],
     [1840, 1841, 1842, 1885, 2096, 2097, 2098, 2141],
     [548, 555, 557, 559, 583, 603, 615, 634],
     [1584, 1593, 1601, 1606, 1633, 1638, 1843, 1849],
     [1857, 1862, 1889, 1894, 2099, 2105, 2113, 2118],
     [2145, 2150, 0, 545, 549, 557, 559, 571],
     [575, 607, 638, 1582, 1629, 1838, 1850, 1885],
     [2094, 2106, 2141, 548, 555, 583, 603, 615],
     [634, 1584, 1594, 1601, 1606, 1633, 1638, 1840],
     [1849, 1857, 1862, 1889, 1894, 2096, 2105, 2113],
     [2118, 2145, 2150, 0, 545, 549, 571, 575],
     [607, 638, 1629, 1850, 1885, 2106, 2141, 548],
     [555, 557, 559, 583, 603, 615, 634, 1584],
     [1594, 1601, 1606, 1633, 1638, 1840, 1849, 1857],
     [1862, 1889, 1894, 2096, 2105, 2113, 2118, 2145],
     [2150, 0, 545, 549, 571, 575, 607, 638],
     [1629, 1850, 1885, 2106, 2141, 548, 555, 557],
     [559, 583, 603, 615, 634, 1584, 1594, 1601],
     [1606, 1633, 1638, 1840, 1849, 1857, 1862, 1889],
     [1894, 2096, 2105, 2113, 2118, 2145, 2150, 0],
     [545, 549, 571, 575, 607, 638, 1594, 1629],
     [1850, 1885, 2106, 2141, 548, 555, 557, 569],
     [577, 603, 609, 634, 0, 545, 549, 570],
     [571, 575, 605, 607, 638, 1840, 1841, 1842],
     [2096, 2097, 2098, 548, 555, 557, 559, 583],
     [603, 615, 634, 1584, 1593, 1601, 1606, 1633],
     [1638, 1843, 1849, 1857, 1862, 1889, 1894, 2099],
     [2105, 2113, 2118, 2145, 2150, 0, 545, 549],
     [557, 559, 571, 575, 607, 638, 1582, 1629],
     [1838, 1850, 1885, 2094, 2106, 2141, 548, 555],
     [583, 603, 615, 634, 1584, 1594, 1601, 1606],
     [1633, 1638, 1840, 1849, 1857, 1862, 1889, 1894],
     [2096, 2105, 2113, 2118, 2145, 2150, 0, 545],
     [549, 557, 559, 571, 575, 607, 638, 1582],
     [1629, 1838, 1850, 1885, 2094, 2106, 2141, 548],
     [555, 583, 603, 615, 634, 1584, 1594, 1601],
     [1606, 1633, 1638, 1840, 1849, 1857, 1862, 1889],
     [1894, 2096, 2105, 2113, 2118, 2145, 2150, 0],
     [545, 549, 557, 559, 571, 575, 607, 638],
     [1582, 1629, 1838, 1850, 1885, 2094, 2106, 2141],
     [548, 555, 583, 603, 615, 634, 1584, 1594],
     [1601, 1606, 1633, 1638, 1840, 1849, 1857, 1862],
     [1889, 1894, 2096, 2105, 2113, 2118, 2145, 2150],
     [0, 545, 549, 557, 559, 571, 575, 607],
     [638, 1582, 1629, 1838, 1845, 1850, 1885, 2094],
     [2101, 2106, 2141, 548, 555, 583, 603, 615],
     [634, 1584, 1594, 1601, 1606, 1633, 1638, 1840],
     [1844, 1846, 1849, 1857, 1862, 1889, 1894, 2096],
     [2100, 2102, 2105, 2113, 2118, 2145, 2150, 0],
     [545, 549, 557, 559, 571, 575, 607, 638],
     [1582, 1629, 1838, 1850, 1885, 2094, 2106, 2141],
     [548, 555, 583, 603, 615, 634, 1584, 1594]]"

definition sup_trans_keys_36 :: "int list list" where
  "sup_trans_keys_36 =
    [[1601, 1606, 1633, 1638, 1840, 1845, 1846, 1849],
     [1857, 1862, 1889, 1894, 2096, 2101, 2102, 2105],
     [2113, 2118, 2145, 2150, 0, 545, 549, 557],
     [559, 571, 575, 607, 638, 1582, 1629, 1838],
     [1850, 1885, 2094, 2106, 2141, 548, 555, 583],
     [603, 615, 634, 1584, 1594, 1601, 1606, 1633],
     [1638, 1840, 1849, 1857, 1862, 1889, 1894, 2096],
     [2105, 2113, 2118, 2145, 2150, 0, 545, 549],
     [557, 559, 571, 575, 607, 638, 1582, 1629],
     [1838, 1850, 1885, 2094, 2106, 2141, 548, 555],
     [583, 603, 615, 634, 1584, 1594, 1601, 1606],
     [1633, 1638, 1840, 1849, 1857, 1862, 1889, 1894],
     [2096, 2105, 2113, 2118, 2145, 2150, 0, 545],
     [549, 571, 575, 607, 638, 1629, 1850, 1885],
     [2106, 2141, 548, 555, 557, 559, 583, 603],
     [615, 634, 1584, 1594, 1601, 1606, 1633, 1638],
     [1840, 1849, 1857, 1862, 1889, 1894, 2096, 2105],
     [2113, 2118, 2145, 2150, 0, 545, 549, 571],
     [575, 605, 607, 638, 1594, 1850, 2106, 548],
     [555, 557, 569, 577, 603, 609, 634, 0],
     [545, 549, 570, 571, 575, 607, 638, 1629],
     [1840, 1841, 1842, 1885, 2096, 2097, 2098, 2141],
     [548, 555, 557, 559, 583, 603, 615, 634],
     [1584, 1593, 1601, 1606, 1633, 1638, 1843, 1849],
     [1857, 1862, 1889, 1894, 2099, 2105, 2113, 2118],
     [2145, 2150, 0, 545, 549, 557, 559, 571],
     [575, 607, 638, 1582, 1629, 1838, 1850, 1885],
     [2094, 2106, 2141, 548, 555, 583, 603, 615],
     [634, 1584, 1594, 1601, 1606, 1633, 1638, 1840],
     [1849, 1857, 1862, 1889, 1894, 2096, 2105, 2113],
     [2118, 2145, 2150, 0, 545, 549, 571, 575],
     [607, 638, 1629, 1850, 1885, 2106, 2141, 548],
     [555, 557, 559, 583, 603, 615, 634, 1584],
     [1594, 1601, 1606, 1633, 1638, 1840, 1849, 1857],
     [1862, 1889, 1894, 2096, 2105, 2113, 2118, 2145],
     [2150, 0, 545, 549, 571, 575, 607, 638],
     [1629, 1850, 1885, 2106, 2141, 548, 555, 557],
     [559, 583, 603, 615, 634, 1584, 1594, 1601],
     [1606, 1633, 1638, 1840, 1849, 1857, 1862, 1889],
     [1894, 2096, 2105, 2113, 2118, 2145, 2150, 0],
     [545, 549, 571, 575, 607, 638, 1594, 1629],
     [1850, 1885, 2106, 2141, 548, 555, 557, 569],
     [577, 603, 609, 634, 0, 545, 549, 570],
     [571, 575, 605, 607, 638, 1840, 1841, 1842],
     [2096, 2097, 2098, 548, 555, 557, 559, 583],
     [603, 615, 634, 1584, 1593, 1601, 1606, 1633],
     [1638, 1843, 1849, 1857, 1862, 1889, 1894, 2099],
     [2105, 2113, 2118, 2145, 2150, 0, 545, 549],
     [557, 559, 571, 575, 607, 638, 1582, 1629],
     [1838, 1850, 1885, 2094, 2106, 2141, 548, 555],
     [583, 603, 615, 634, 1584, 1594, 1601, 1606],
     [1633, 1638, 1840, 1849, 1857, 1862, 1889, 1894],
     [2096, 2105, 2113, 2118, 2145, 2150, 0, 545],
     [549, 557, 559, 571, 575, 607, 638, 1582],
     [1629, 1838, 1850, 1885, 2094, 2106, 2141, 548],
     [555, 583, 603, 615, 634, 1584, 1594, 1601],
     [1606, 1633, 1638, 1840, 1849, 1857, 1862, 1889],
     [1894, 2096, 2105, 2113, 2118, 2145, 2150, 0],
     [545, 549, 557, 559, 571, 575, 607, 638],
     [1582, 1629, 1838, 1850, 1885, 2094, 2106, 2141],
     [548, 555, 583, 603, 615, 634, 1584, 1594],
     [1601, 1606, 1633, 1638, 1840, 1849, 1857, 1862],
     [1889, 1894, 2096, 2105, 2113, 2118, 2145, 2150],
     [0, 545, 549, 557, 559, 571, 575, 607],
     [638, 1582, 1629, 1838, 1845, 1850, 1885, 2094],
     [2101, 2106, 2141, 548, 555, 583, 603, 615],
     [634, 1584, 1594, 1601, 1606, 1633, 1638, 1840],
     [1844, 1846, 1849, 1857, 1862, 1889, 1894, 2096],
     [2100, 2102, 2105, 2113, 2118, 2145, 2150, 0],
     [545, 549, 557, 559, 571, 575, 607, 638],
     [1582, 1629, 1838, 1850, 1885, 2094, 2106, 2141],
     [548, 555, 583, 603, 615, 634, 1584, 1594],
     [1601, 1606, 1633, 1638, 1840, 1845, 1846, 1849],
     [1857, 1862, 1889, 1894, 2096, 2101, 2102, 2105],
     [2113, 2118, 2145, 2150, 0, 545, 549, 557],
     [559, 571, 575, 607, 638, 1582, 1629, 1838],
     [1850, 1885, 2094, 2106, 2141, 548, 555, 583],
     [603, 615, 634, 1584, 1594, 1601, 1606, 1633],
     [1638, 1840, 1849, 1857, 1862, 1889, 1894, 2096],
     [2105, 2113, 2118, 2145, 2150, 0, 545, 549],
     [557, 559, 571, 575, 607, 638, 1582, 1629],
     [1838, 1850, 1885, 2094, 2106, 2141, 548, 555],
     [583, 603, 615, 634, 1584, 1594, 1601, 1606],
     [1633, 1638, 1840, 1849, 1857, 1862, 1889, 1894],
     [2096, 2105, 2113, 2118, 2145, 2150, 0, 545],
     [549, 571, 575, 607, 638, 1629, 1850, 1885],
     [2106, 2141, 548, 555, 557, 559, 583, 603],
     [615, 634, 1584, 1594, 1601, 1606, 1633, 1638],
     [1840, 1849, 1857, 1862, 1889, 1894, 2096, 2105],
     [2113, 2118, 2145, 2150, 0, 548, 550, 559],
     [570, 575, 603, 605, 1033, 1037, 1056, 1120],
     [1569, 1573, 1575, 1595, 1597, 1618, 1631, 1650],
     [1662, 1825, 1829, 1831, 1851, 1853, 1887, 1918],
     [2081, 2085, 2087, 2107, 2109, 2130, 2143, 2162],
     [2174, 552, 553, 1578, 1579, 1581, 1582, 1584],
     [1593, 1601, 1626, 1633, 1658, 1834, 1835, 1837],
     [1838, 1840, 1849, 1857, 1882, 1889, 1914, 2090],
     [2091, 2093, 2094, 2096, 2105, 2113, 2138, 2145],
     [2170, 0, 548, 550, 559, 570, 575, 603],
     [605, 1033, 1037, 1056, 1120, 1569, 1573, 1575],
     [1595, 1597, 1631, 1662, 1825, 1829, 1831, 1851],
     [1853, 1887, 1918, 2081, 2085, 2087, 2107, 2109],
     [2143, 2174, 552, 553, 1578, 1579, 1581, 1582],
     [1584, 1593, 1601, 1626, 1633, 1658, 1834, 1835],
     [1837, 1838, 1840, 1849, 1857, 1882, 1889, 1914],
     [2090, 2091, 2093, 2094, 2096, 2105, 2113, 2138],
     [2145, 2170, 0, 548, 550, 559, 570, 571],
     [573, 575, 605, 1033, 1037, 1056, 1058, 1569],
     [1573, 1575, 1627, 1632, 1662, 1825, 1829, 1831],
     [1883, 1918, 2081, 2085, 2087, 2139, 2144, 2174],
     [552, 553, 1578, 1579, 1581, 1582, 1584, 1593],
     [1601, 1626, 1631, 1658, 1834, 1835, 1837, 1838],
     [1840, 1849, 1857, 1882, 1887, 1914, 2090, 2091],
     [2093, 2094, 2096, 2105, 2113, 2138, 2143, 2170],
     [0, 548, 550, 559, 570, 575, 603, 605],
     [1033, 1037, 1056, 1569, 1573, 1575, 1595, 1632],
     [1662, 1825, 1829, 1831, 1851, 1918, 2081, 2085],
     [2087, 2107, 2144, 2174, 552, 553, 1578, 1579],
     [1581, 1582, 1584, 1593, 1601, 1626, 1631, 1658],
     [1834, 1835, 1837, 1838, 1840, 1849, 1857, 1882],
     [1887, 1914, 2090, 2091, 2093, 2094, 2096, 2105],
     [2113, 2138, 2143, 2170, 0, 575, 1033, 1037],
     [1056, 1569, 1573, 1575, 1595, 1662, 1825, 1829],
     [1831, 1851, 1918, 2081, 2085, 2087, 2107, 2174],
     [1578, 1579, 1581, 1582, 1584, 1593, 1601, 1606],
     [1607, 1626, 1631, 1632, 1633, 1638, 1639, 1658],
     [1834, 1835, 1837, 1838, 1840, 1849, 1857, 1882],
     [1887, 1914, 2090, 2091, 2093, 2094, 2096, 2105],
     [2113, 2118, 2119, 2138, 2143, 2144, 2145, 2150],
     [2151, 2170, 0, 575, 1033, 1037, 1056, 1569],
     [1573, 1575, 1595, 1662, 1825, 1829, 1831, 1851],
     [1918, 2081, 2085, 2087, 2107, 2174, 1578, 1579],
     [1581, 1582, 1584, 1593, 1601, 1626, 1631, 1658],
     [1834, 1835, 1837, 1838, 1840, 1849, 1857, 1882],
     [1887, 1914, 2090, 2091, 2093, 2094, 2096, 2105],
     [2113, 2138, 2143, 2170, 0, 575, 1033, 1037],
     [1056, 1569, 1573, 1575, 1595, 1662, 1825, 1829],
     [1831, 1851, 1918, 2081, 2085, 2087, 2107, 2174],
     [1578, 1579, 1581, 1582, 1584, 1593, 1601, 1606],
     [1607, 1626, 1631, 1632, 1633, 1638, 1639, 1658],
     [1834, 1835, 1837, 1838, 1840, 1849, 1857, 1882],
     [1887, 1914, 2090, 2091, 2093, 2094, 2096, 2105],
     [2113, 2118, 2119, 2138, 2143, 2144, 2145, 2150],
     [2151, 2170, 0, 548, 550, 559, 570, 575],
     [603, 605, 1033, 1037, 1056, 1120, 1569, 1573],
     [1575, 1595, 1597, 1602, 1622, 1631, 1634, 1654],
     [1662, 1825, 1829, 1831, 1851, 1853, 1887, 1918],
     [2081, 2085, 2087, 2107, 2109, 2114, 2134, 2143],
     [2146, 2166, 2174, 552, 553, 1578, 1579, 1581],
     [1582, 1584, 1593, 1601, 1626, 1633, 1658, 1834]]"

definition sup_trans_keys_37 :: "int list list" where
  "sup_trans_keys_37 =
    [[1835, 1837, 1838, 1840, 1849, 1857, 1882, 1889],
     [1914, 2090, 2091, 2093, 2094, 2096, 2105, 2113],
     [2138, 2145, 2170, 0, 548, 550, 559, 570],
     [575, 603, 605, 1033, 1037, 1056, 1120, 1569],
     [1573, 1575, 1595, 1597, 1631, 1662, 1825, 1829],
     [1831, 1851, 1853, 1887, 1918, 2081, 2085, 2087],
     [2107, 2109, 2143, 2174, 552, 553, 1578, 1579],
     [1581, 1582, 1584, 1593, 1601, 1626, 1633, 1658],
     [1834, 1835, 1837, 1838, 1840, 1849, 1857, 1882],
     [1889, 1914, 2090, 2091, 2093, 2094, 2096, 2105],
     [2113, 2138, 2145, 2170, 0, 548, 550, 559],
     [570, 575, 603, 605, 1033, 1037, 1056, 1120],
     [1569, 1573, 1575, 1595, 1597, 1609, 1631, 1641],
     [1662, 1825, 1829, 1831, 1851, 1853, 1887, 1918],
     [2081, 2085, 2087, 2107, 2109, 2121, 2143, 2153],
     [2174, 552, 553, 1578, 1579, 1581, 1582, 1584],
     [1593, 1601, 1626, 1633, 1658, 1834, 1835, 1837],
     [1838, 1840, 1849, 1857, 1882, 1889, 1914, 2090],
     [2091, 2093, 2094, 2096, 2105, 2113, 2138, 2145],
     [2170, 0, 548, 550, 559, 570, 575, 603],
     [605, 1033, 1037, 1056, 1120, 1569, 1573, 1575],
     [1595, 1597, 1604, 1631, 1636, 1662, 1825, 1829],
     [1831, 1851, 1853, 1887, 1918, 2081, 2085, 2087],
     [2107, 2109, 2116, 2143, 2148, 2174, 552, 553],
     [1578, 1579, 1581, 1582, 1584, 1593, 1601, 1626],
     [1633, 1658, 1834, 1835, 1837, 1838, 1840, 1849],
     [1857, 1882, 1889, 1914, 2090, 2091, 2093, 2094],
     [2096, 2105, 2113, 2138, 2145, 2170, 0, 548],
     [550, 559, 570, 575, 603, 605, 1033, 1037],
     [1056, 1120, 1569, 1573, 1575, 1595, 1597, 1631],
     [1662, 1825, 1829, 1831, 1851, 1853, 1887, 1918],
     [2081, 2085, 2087, 2107, 2109, 2143, 2174, 552],
     [553, 1578, 1579, 1581, 1582, 1584, 1593, 1601],
     [1626, 1633, 1658, 1834, 1835, 1837, 1838, 1840],
     [1849, 1857, 1882, 1889, 1914, 2090, 2091, 2093],
     [2094, 2096, 2105, 2113, 2138, 2145, 2170, 0],
     [548, 550, 559, 570, 571, 573, 575, 605],
     [1033, 1037, 1056, 1058, 1569, 1573, 1575, 1627],
     [1632, 1662, 1825, 1829, 1831, 1883, 1918, 2081],
     [2085, 2087, 2139, 2144, 2174, 552, 553, 1578],
     [1579, 1581, 1582, 1584, 1593, 1601, 1626, 1631],
     [1658, 1834, 1835, 1837, 1838, 1840, 1849, 1857],
     [1882, 1887, 1914, 2090, 2091, 2093, 2094, 2096],
     [2105, 2113, 2138, 2143, 2170, 0, 548, 550],
     [559, 570, 575, 603, 605, 1033, 1037, 1056],
     [1569, 1573, 1575, 1595, 1632, 1662, 1825, 1829],
     [1831, 1851, 1918, 2081, 2085, 2087, 2107, 2144],
     [2174, 552, 553, 1578, 1579, 1581, 1582, 1584],
     [1593, 1601, 1626, 1631, 1658, 1834, 1835, 1837],
     [1838, 1840, 1849, 1857, 1882, 1887, 1914, 2090],
     [2091, 2093, 2094, 2096, 2105, 2113, 2138, 2143],
     [2170, 0, 575, 1033, 1037, 1056, 1569, 1573],
     [1575, 1595, 1662, 1825, 1829, 1831, 1851, 1918],
     [2081, 2085, 2087, 2107, 2174, 1578, 1579, 1581],
     [1582, 1584, 1593, 1601, 1606, 1607, 1626, 1631],
     [1632, 1633, 1638, 1639, 1658, 1834, 1835, 1837],
     [1838, 1840, 1849, 1857, 1882, 1887, 1914, 2090],
     [2091, 2093, 2094, 2096, 2105, 2113, 2118, 2119],
     [2138, 2143, 2144, 2145, 2150, 2151, 2170, 0],
     [575, 1033, 1037, 1056, 1569, 1573, 1575, 1595],
     [1662, 1825, 1829, 1831, 1851, 1918, 2081, 2085],
     [2087, 2107, 2174, 1578, 1579, 1581, 1582, 1584],
     [1593, 1601, 1626, 1631, 1658, 1834, 1835, 1837],
     [1838, 1840, 1849, 1857, 1882, 1887, 1914, 2090],
     [2091, 2093, 2094, 2096, 2105, 2113, 2138, 2143],
     [2170, 0, 575, 1033, 1037, 1056, 1569, 1573],
     [1575, 1595, 1662, 1825, 1829, 1831, 1851, 1918],
     [2081, 2085, 2087, 2107, 2174, 1578, 1579, 1581],
     [1582, 1584, 1593, 1601, 1606, 1607, 1626, 1631],
     [1632, 1633, 1638, 1639, 1658, 1834, 1835, 1837],
     [1838, 1840, 1849, 1857, 1882, 1887, 1914, 2090],
     [2091, 2093, 2094, 2096, 2105, 2113, 2118, 2119],
     [2138, 2143, 2144, 2145, 2150, 2151, 2170, 0],
     [548, 550, 559, 570, 575, 603, 605, 1033],
     [1037, 1056, 1120, 1569, 1573, 1575, 1595, 1597],
     [1618, 1631, 1650, 1662, 1825, 1829, 1831, 1851],
     [1853, 1887, 1918, 2081, 2085, 2087, 2107, 2109],
     [2130, 2143, 2162, 2174, 552, 553, 1578, 1579],
     [1581, 1582, 1584, 1593, 1601, 1626, 1633, 1658],
     [1834, 1835, 1837, 1838, 1840, 1849, 1857, 1882],
     [1889, 1914, 2090, 2091, 2093, 2094, 2096, 2105],
     [2113, 2138, 2145, 2170, 0, 548, 550, 559],
     [570, 575, 603, 605, 1033, 1037, 1056, 1120],
     [1569, 1573, 1575, 1595, 1597, 1601, 1631, 1633],
     [1662, 1825, 1829, 1831, 1851, 1853, 1887, 1918],
     [2081, 2085, 2087, 2107, 2109, 2113, 2143, 2145],
     [2174, 552, 553, 1578, 1579, 1581, 1582, 1584],
     [1593, 1602, 1626, 1634, 1658, 1834, 1835, 1837],
     [1838, 1840, 1849, 1857, 1882, 1889, 1914, 2090],
     [2091, 2093, 2094, 2096, 2105, 2114, 2138, 2146],
     [2170, 0, 548, 550, 559, 570, 575, 603],
     [605, 1033, 1037, 1056, 1120, 1569, 1573, 1575],
     [1595, 1597, 1614, 1631, 1646, 1662, 1825, 1829],
     [1831, 1851, 1853, 1887, 1918, 2081, 2085, 2087],
     [2107, 2109, 2126, 2143, 2158, 2174, 552, 553],
     [1578, 1579, 1581, 1582, 1584, 1593, 1601, 1626],
     [1633, 1658, 1834, 1835, 1837, 1838, 1840, 1849],
     [1857, 1882, 1889, 1914, 2090, 2091, 2093, 2094],
     [2096, 2105, 2113, 2138, 2145, 2170, 0, 548],
     [550, 559, 570, 575, 603, 605, 1033, 1037],
     [1056, 1120, 1569, 1573, 1575, 1595, 1597, 1619],
     [1631, 1651, 1662, 1825, 1829, 1831, 1851, 1853],
     [1887, 1918, 2081, 2085, 2087, 2107, 2109, 2131],
     [2143, 2163, 2174, 552, 553, 1578, 1579, 1581],
     [1582, 1584, 1593, 1601, 1626, 1633, 1658, 1834],
     [1835, 1837, 1838, 1840, 1849, 1857, 1882, 1889],
     [1914, 2090, 2091, 2093, 2094, 2096, 2105, 2113],
     [2138, 2145, 2170, 0, 548, 550, 559, 570],
     [575, 603, 605, 1033, 1037, 1056, 1120, 1569],
     [1573, 1575, 1595, 1597, 1616, 1631, 1648, 1662],
     [1825, 1829, 1831, 1851, 1853, 1887, 1918, 2081],
     [2085, 2087, 2107, 2109, 2128, 2143, 2160, 2174],
     [552, 553, 1578, 1579, 1581, 1582, 1584, 1593],
     [1601, 1626, 1633, 1658, 1834, 1835, 1837, 1838],
     [1840, 1849, 1857, 1882, 1889, 1914, 2090, 2091],
     [2093, 2094, 2096, 2105, 2113, 2138, 2145, 2170],
     [0, 548, 550, 559, 570, 575, 603, 605],
     [1033, 1037, 1056, 1120, 1569, 1573, 1575, 1595],
     [1597, 1615, 1631, 1647, 1662, 1825, 1829, 1831],
     [1851, 1853, 1887, 1918, 2081, 2085, 2087, 2107],
     [2109, 2127, 2143, 2159, 2174, 552, 553, 1578],
     [1579, 1581, 1582, 1584, 1593, 1601, 1626, 1633],
     [1658, 1834, 1835, 1837, 1838, 1840, 1849, 1857],
     [1882, 1889, 1914, 2090, 2091, 2093, 2094, 2096],
     [2105, 2113, 2138, 2145, 2170, 0, 548, 550],
     [559, 570, 575, 603, 605, 1033, 1037, 1056],
     [1120, 1569, 1573, 1575, 1595, 1597, 1618, 1631],
     [1650, 1662, 1825, 1829, 1831, 1851, 1853, 1887],
     [1918, 2081, 2085, 2087, 2107, 2109, 2130, 2143],
     [2162, 2174, 552, 553, 1578, 1579, 1581, 1582],
     [1584, 1593, 1601, 1626, 1633, 1658, 1834, 1835],
     [1837, 1838, 1840, 1849, 1857, 1882, 1889, 1914],
     [2090, 2091, 2093, 2094, 2096, 2105, 2113, 2138],
     [2145, 2170, 0, 548, 550, 559, 570, 575],
     [603, 605, 1033, 1037, 1056, 1120, 1569, 1573],
     [1575, 1595, 1597, 1620, 1631, 1652, 1662, 1825],
     [1829, 1831, 1851, 1853, 1887, 1918, 2081, 2085],
     [2087, 2107, 2109, 2132, 2143, 2164, 2174, 552],
     [553, 1578, 1579, 1581, 1582, 1584, 1593, 1601],
     [1626, 1633, 1658, 1834, 1835, 1837, 1838, 1840],
     [1849, 1857, 1882, 1889, 1914, 2090, 2091, 2093],
     [2094, 2096, 2105, 2113, 2138, 2145, 2170, 0],
     [548, 550, 559, 570, 575, 603, 605, 1033],
     [1037, 1056, 1120, 1569, 1573, 1575, 1595, 1597],
     [1631, 1662, 1825, 1829, 1831, 1851, 1853, 1887],
     [1918, 2081, 2085, 2087, 2107, 2109, 2143, 2174],
     [552, 553, 1578, 1579, 1581, 1582, 1584, 1593],
     [1601, 1626, 1633, 1658, 1834, 1835, 1837, 1838],
     [1840, 1849, 1857, 1882, 1889, 1914, 2090, 2091],
     [2093, 2094, 2096, 2105, 2113, 2138, 2145, 2170]]"

definition sup_trans_keys_38 :: "int list list" where
  "sup_trans_keys_38 =
    [[0, 548, 550, 559, 570, 571, 573, 575],
     [605, 1033, 1037, 1056, 1058, 1569, 1573, 1575],
     [1619, 1620, 1621, 1623, 1627, 1632, 1651, 1652],
     [1653, 1655, 1662, 1825, 1829, 1831, 1883, 1918],
     [2081, 2085, 2087, 2131, 2132, 2133, 2135, 2139],
     [2144, 2163, 2164, 2165, 2167, 2174, 552, 553],
     [1578, 1579, 1581, 1582, 1584, 1593, 1601, 1626],
     [1631, 1658, 1834, 1835, 1837, 1838, 1840, 1849],
     [1857, 1882, 1887, 1914, 2090, 2091, 2093, 2094],
     [2096, 2105, 2113, 2138, 2143, 2170, 0, 548],
     [550, 559, 570, 575, 603, 605, 1033, 1037],
     [1056, 1569, 1573, 1575, 1595, 1632, 1662, 1825],
     [1829, 1831, 1851, 1918, 2081, 2085, 2087, 2107],
     [2144, 2174, 552, 553, 1578, 1579, 1581, 1582],
     [1584, 1593, 1601, 1626, 1631, 1658, 1834, 1835],
     [1837, 1838, 1840, 1849, 1857, 1882, 1887, 1914],
     [2090, 2091, 2093, 2094, 2096, 2105, 2113, 2138],
     [2143, 2170, 0, 575, 1033, 1037, 1056, 1569],
     [1573, 1575, 1595, 1662, 1825, 1829, 1831, 1851],
     [1918, 2081, 2085, 2087, 2107, 2174, 1578, 1579],
     [1581, 1582, 1584, 1593, 1601, 1606, 1607, 1626],
     [1631, 1632, 1633, 1638, 1639, 1658, 1834, 1835],
     [1837, 1838, 1840, 1849, 1857, 1882, 1887, 1914],
     [2090, 2091, 2093, 2094, 2096, 2105, 2113, 2118],
     [2119, 2138, 2143, 2144, 2145, 2150, 2151, 2170],
     [0, 575, 1033, 1037, 1056, 1569, 1573, 1575],
     [1595, 1662, 1825, 1829, 1831, 1851, 1918, 2081],
     [2085, 2087, 2107, 2174, 1578, 1579, 1581, 1582],
     [1584, 1593, 1601, 1626, 1631, 1658, 1834, 1835],
     [1837, 1838, 1840, 1849, 1857, 1882, 1887, 1914],
     [2090, 2091, 2093, 2094, 2096, 2105, 2113, 2138],
     [2143, 2170, 0, 575, 1033, 1037, 1056, 1569],
     [1573, 1575, 1595, 1662, 1825, 1829, 1831, 1851],
     [1918, 2081, 2085, 2087, 2107, 2174, 1578, 1579],
     [1581, 1582, 1584, 1593, 1601, 1606, 1607, 1626],
     [1631, 1632, 1633, 1638, 1639, 1658, 1834, 1835],
     [1837, 1838, 1840, 1849, 1857, 1882, 1887, 1914],
     [2090, 2091, 2093, 2094, 2096, 2105, 2113, 2118],
     [2119, 2138, 2143, 2144, 2145, 2150, 2151, 2170],
     [0, 548, 550, 559, 570, 575, 603, 605],
     [1033, 1037, 1056, 1569, 1573, 1575, 1595, 1603],
     [1632, 1635, 1662, 1825, 1829, 1831, 1851, 1918],
     [2081, 2085, 2087, 2107, 2115, 2144, 2147, 2174],
     [552, 553, 1578, 1579, 1581, 1582, 1584, 1593],
     [1601, 1626, 1631, 1658, 1834, 1835, 1837, 1838],
     [1840, 1849, 1857, 1882, 1887, 1914, 2090, 2091],
     [2093, 2094, 2096, 2105, 2113, 2138, 2143, 2170],
     [0, 548, 550, 559, 570, 575, 603, 605],
     [1033, 1037, 1056, 1569, 1573, 1575, 1595, 1620],
     [1632, 1652, 1662, 1825, 1829, 1831, 1851, 1918],
     [2081, 2085, 2087, 2107, 2132, 2144, 2164, 2174],
     [552, 553, 1578, 1579, 1581, 1582, 1584, 1593],
     [1601, 1626, 1631, 1658, 1834, 1835, 1837, 1838],
     [1840, 1849, 1857, 1882, 1887, 1914, 2090, 2091],
     [2093, 2094, 2096, 2105, 2113, 2138, 2143, 2170],
     [0, 548, 550, 559, 570, 575, 603, 605],
     [1033, 1037, 1056, 1569, 1573, 1575, 1595, 1616],
     [1632, 1648, 1662, 1825, 1829, 1831, 1851, 1918],
     [2081, 2085, 2087, 2107, 2128, 2144, 2160, 2174],
     [552, 553, 1578, 1579, 1581, 1582, 1584, 1593],
     [1601, 1626, 1631, 1658, 1834, 1835, 1837, 1838],
     [1840, 1849, 1857, 1882, 1887, 1914, 2090, 2091],
     [2093, 2094, 2096, 2105, 2113, 2138, 2143, 2170],
     [0, 548, 550, 559, 570, 575, 603, 605],
     [1033, 1037, 1056, 1569, 1573, 1575, 1595, 1632],
     [1662, 1825, 1829, 1831, 1851, 1918, 2081, 2085],
     [2087, 2107, 2144, 2174, 552, 553, 1578, 1579],
     [1581, 1582, 1584, 1593, 1601, 1626, 1631, 1658],
     [1834, 1835, 1837, 1838, 1840, 1849, 1857, 1882],
     [1887, 1914, 2090, 2091, 2093, 2094, 2096, 2105],
     [2113, 2138, 2143, 2170, 0, 548, 550, 559],
     [570, 575, 603, 605, 1033, 1037, 1056, 1569],
     [1573, 1575, 1595, 1603, 1612, 1632, 1635, 1644],
     [1662, 1825, 1829, 1831, 1851, 1918, 2081, 2085],
     [2087, 2107, 2115, 2124, 2144, 2147, 2156, 2174],
     [552, 553, 1578, 1579, 1581, 1582, 1584, 1593],
     [1601, 1626, 1631, 1658, 1834, 1835, 1837, 1838],
     [1840, 1849, 1857, 1882, 1887, 1914, 2090, 2091],
     [2093, 2094, 2096, 2105, 2113, 2138, 2143, 2170],
     [0, 548, 550, 559, 570, 575, 603, 605],
     [1033, 1037, 1056, 1569, 1573, 1575, 1595, 1616],
     [1632, 1648, 1662, 1825, 1829, 1831, 1851, 1918],
     [2081, 2085, 2087, 2107, 2128, 2144, 2160, 2174],
     [552, 553, 1578, 1579, 1581, 1582, 1584, 1593],
     [1601, 1626, 1631, 1658, 1834, 1835, 1837, 1838],
     [1840, 1849, 1857, 1882, 1887, 1914, 2090, 2091],
     [2093, 2094, 2096, 2105, 2113, 2138, 2143, 2170],
     [0, 548, 550, 559, 570, 575, 603, 605],
     [1033, 1037, 1056, 1569, 1573, 1575, 1595, 1632],
     [1662, 1825, 1829, 1831, 1851, 1918, 2081, 2085],
     [2087, 2107, 2144, 2174, 552, 553, 1578, 1579],
     [1581, 1582, 1584, 1593, 1601, 1626, 1631, 1658],
     [1834, 1835, 1837, 1838, 1840, 1849, 1857, 1882],
     [1887, 1914, 2090, 2091, 2093, 2094, 2096, 2105],
     [2113, 2138, 2143, 2170, 0, 548, 550, 559],
     [570, 575, 603, 605, 1033, 1037, 1056, 1569],
     [1573, 1575, 1595, 1619, 1632, 1651, 1662, 1825],
     [1829, 1831, 1851, 1918, 2081, 2085, 2087, 2107],
     [2131, 2144, 2163, 2174, 552, 553, 1578, 1579],
     [1581, 1582, 1584, 1593, 1601, 1626, 1631, 1658],
     [1834, 1835, 1837, 1838, 1840, 1849, 1857, 1882],
     [1887, 1914, 2090, 2091, 2093, 2094, 2096, 2105],
     [2113, 2138, 2143, 2170, 0, 548, 550, 559],
     [570, 575, 603, 605, 1033, 1037, 1056, 1569],
     [1573, 1575, 1595, 1632, 1662, 1825, 1829, 1831],
     [1851, 1918, 2081, 2085, 2087, 2107, 2144, 2174],
     [552, 553, 1578, 1579, 1581, 1582, 1584, 1593],
     [1601, 1626, 1631, 1658, 1834, 1835, 1837, 1838],
     [1840, 1849, 1857, 1882, 1887, 1914, 2090, 2091],
     [2093, 2094, 2096, 2105, 2113, 2138, 2143, 2170],
     [0, 548, 550, 559, 570, 575, 603, 605],
     [1033, 1037, 1056, 1569, 1573, 1575, 1595, 1604],
     [1632, 1636, 1662, 1825, 1829, 1831, 1851, 1918],
     [2081, 2085, 2087, 2107, 2116, 2144, 2148, 2174],
     [552, 553, 1578, 1579, 1581, 1582, 1584, 1593],
     [1601, 1626, 1631, 1658, 1834, 1835, 1837, 1838],
     [1840, 1849, 1857, 1882, 1887, 1914, 2090, 2091],
     [2093, 2094, 2096, 2105, 2113, 2138, 2143, 2170],
     [0, 548, 550, 559, 570, 575, 603, 605],
     [1033, 1037, 1056, 1569, 1573, 1575, 1595, 1616],
     [1632, 1648, 1662, 1825, 1829, 1831, 1851, 1918],
     [2081, 2085, 2087, 2107, 2128, 2144, 2160, 2174],
     [552, 553, 1578, 1579, 1581, 1582, 1584, 1593],
     [1601, 1626, 1631, 1658, 1834, 1835, 1837, 1838],
     [1840, 1849, 1857, 1882, 1887, 1914, 2090, 2091],
     [2093, 2094, 2096, 2105, 2113, 2138, 2143, 2170],
     [0, 548, 550, 559, 570, 575, 603, 605],
     [1033, 1037, 1056, 1569, 1573, 1575, 1595, 1632],
     [1662, 1825, 1829, 1831, 1851, 1918, 2081, 2085],
     [2087, 2107, 2144, 2174, 552, 553, 1578, 1579],
     [1581, 1582, 1584, 1593, 1601, 1626, 1631, 1658],
     [1834, 1835, 1837, 1838, 1840, 1849, 1857, 1882],
     [1887, 1914, 2090, 2091, 2093, 2094, 2096, 2105],
     [2113, 2138, 2143, 2170, 0, 548, 550, 559],
     [570, 575, 603, 605, 1033, 1037, 1056, 1569],
     [1573, 1575, 1595, 1619, 1632, 1651, 1662, 1825],
     [1829, 1831, 1851, 1918, 2081, 2085, 2087, 2107],
     [2131, 2144, 2163, 2174, 552, 553, 1578, 1579],
     [1581, 1582, 1584, 1593, 1601, 1626, 1631, 1658],
     [1834, 1835, 1837, 1838, 1840, 1849, 1857, 1882],
     [1887, 1914, 2090, 2091, 2093, 2094, 2096, 2105],
     [2113, 2138, 2143, 2170, 0, 548, 550, 559],
     [570, 575, 603, 605, 1033, 1037, 1056, 1569],
     [1573, 1575, 1595, 1619, 1632, 1651, 1662, 1825],
     [1829, 1831, 1851, 1918, 2081, 2085, 2087, 2107],
     [2131, 2144, 2163, 2174, 552, 553, 1578, 1579],
     [1581, 1582, 1584, 1593, 1601, 1626, 1631, 1658],
     [1834, 1835, 1837, 1838, 1840, 1849, 1857, 1882],
     [1887, 1914, 2090, 2091, 2093, 2094, 2096, 2105],
     [2113, 2138, 2143, 2170, 0, 548, 550, 559]]"

definition sup_trans_keys_39 :: "int list list" where
  "sup_trans_keys_39 =
    [[570, 575, 603, 605, 1033, 1037, 1056, 1569],
     [1573, 1575, 1595, 1632, 1662, 1825, 1829, 1831],
     [1851, 1918, 2081, 2085, 2087, 2107, 2144, 2174],
     [552, 553, 1578, 1579, 1581, 1582, 1584, 1593],
     [1601, 1626, 1631, 1658, 1834, 1835, 1837, 1838],
     [1840, 1849, 1857, 1882, 1887, 1914, 2090, 2091],
     [2093, 2094, 2096, 2105, 2113, 2138, 2143, 2170],
     [0, 575, 1033, 1037, 1056, 1595, 1851, 2107],
     [1584, 1593, 1840, 1849, 2096, 2105, 0, 575],
     [1033, 1037, 1056, 1595, 1851, 2107, 1584, 1593],
     [1840, 1849, 2096, 2105, 0, 575, 1033, 1037],
     [1056, 1595, 1851, 2107, 1584, 1593, 1840, 1849],
     [2096, 2105, 0, 575, 1033, 1037, 1056, 1595],
     [1851, 2107, 1584, 1593, 1840, 1849, 2096, 2105],
     [0, 575, 1033, 1037, 1056, 1589, 1595, 1845],
     [1851, 2101, 2107, 1584, 1588, 1590, 1593, 1840],
     [1844, 1846, 1849, 2096, 2100, 2102, 2105, 0],
     [575, 1033, 1037, 1056, 1589, 1595, 1845, 1851],
     [2101, 2107, 1584, 1588, 1590, 1593, 1840, 1844],
     [1846, 1849, 2096, 2100, 2102, 2105, 0, 575],
     [1033, 1037, 1056, 1587, 1595, 1843, 1851, 2099],
     [2107, 1584, 1586, 1588, 1593, 1840, 1842, 1844],
     [1849, 2096, 2098, 2100, 2105, 0, 575, 1033],
     [1037, 1056, 1595, 1851, 2107, 1584, 1589, 1840],
     [1845, 2096, 2101, 1584, 1585, 1586, 1840, 1841],
     [1842, 2096, 2097, 2098, 1587, 1593, 1601, 1626],
     [1633, 1658, 1843, 1849, 1857, 1882, 1889, 1914],
     [2099, 2105, 2113, 2138, 2145, 2170, 1581, 1582],
     [1631, 1837, 1838, 1887, 2093, 2094, 2143, 1584],
     [1593, 1601, 1626, 1633, 1658, 1840, 1849, 1857],
     [1882, 1889, 1914, 2096, 2105, 2113, 2138, 2145],
     [2170, 1584, 1585, 1586, 1840, 1841, 1842, 2096],
     [2097, 2098, 1587, 1593, 1601, 1626, 1633, 1658],
     [1843, 1849, 1857, 1882, 1889, 1914, 2099, 2105],
     [2113, 2138, 2145, 2170, 1581, 1582, 1631, 1837],
     [1838, 1887, 2093, 2094, 2143, 1584, 1593, 1601],
     [1626, 1633, 1658, 1840, 1849, 1857, 1882, 1889],
     [1914, 2096, 2105, 2113, 2138, 2145, 2170, 1584],
     [1585, 1586, 1840, 1841, 1842, 2096, 2097, 2098],
     [1587, 1593, 1601, 1626, 1633, 1658, 1843, 1849],
     [1857, 1882, 1889, 1914, 2099, 2105, 2113, 2138],
     [2145, 2170, 0, 575, 1033, 1037, 1056, 1581],
     [1582, 1594, 1595, 1631, 1837, 1838, 1850, 1851],
     [1887, 2093, 2094, 2106, 2107, 2143, 1584, 1593],
     [1601, 1626, 1633, 1658, 1840, 1849, 1857, 1882],
     [1889, 1914, 2096, 2105, 2113, 2138, 2145, 2170],
     [0, 575, 1033, 1037, 1056, 1581, 1582, 1594],
     [1595, 1631, 1837, 1838, 1850, 1851, 1887, 2093],
     [2094, 2106, 2107, 2143, 1584, 1593, 1601, 1626],
     [1633, 1658, 1840, 1849, 1857, 1882, 1889, 1914],
     [2096, 2105, 2113, 2138, 2145, 2170, 0, 575],
     [1033, 1037, 1056, 1581, 1582, 1594, 1595, 1631],
     [1837, 1838, 1850, 1851, 1887, 2093, 2094, 2106],
     [2107, 2143, 1584, 1593, 1601, 1626, 1633, 1658],
     [1840, 1849, 1857, 1882, 1889, 1914, 2096, 2105],
     [2113, 2138, 2145, 2170, 0, 575, 1033, 1037],
     [1056, 1581, 1582, 1589, 1594, 1595, 1631, 1837],
     [1838, 1845, 1850, 1851, 1887, 2093, 2094, 2101],
     [2106, 2107, 2143, 1584, 1588, 1590, 1593, 1601],
     [1626, 1633, 1658, 1840, 1844, 1846, 1849, 1857],
     [1882, 1889, 1914, 2096, 2100, 2102, 2105, 2113],
     [2138, 2145, 2170, 0, 575, 1033, 1037, 1056],
     [1581, 1582, 1594, 1595, 1631, 1837, 1838, 1850],
     [1851, 1887, 2093, 2094, 2106, 2107, 2143, 1584],
     [1589, 1590, 1593, 1601, 1626, 1633, 1658, 1840],
     [1845, 1846, 1849, 1857, 1882, 1889, 1914, 2096],
     [2101, 2102, 2105, 2113, 2138, 2145, 2170, 1581],
     [1582, 1631, 1837, 1838, 1887, 2093, 2094, 2143],
     [1584, 1593, 1601, 1626, 1633, 1658, 1840, 1849],
     [1857, 1882, 1889, 1914, 2096, 2105, 2113, 2138],
     [2145, 2170, 1581, 1582, 1631, 1837, 1838, 1887],
     [2093, 2094, 2143, 1584, 1593, 1601, 1626, 1633],
     [1658, 1840, 1849, 1857, 1882, 1889, 1914, 2096],
     [2105, 2113, 2138, 2145, 2170, 1581, 1582, 1589],
     [1631, 1837, 1838, 1845, 1887, 2093, 2094, 2101],
     [2143, 1584, 1588, 1590, 1593, 1601, 1626, 1633],
     [1658, 1840, 1844, 1846, 1849, 1857, 1882, 1889],
     [1914, 2096, 2100, 2102, 2105, 2113, 2138, 2145],
     [2170, 1581, 1582, 1631, 1837, 1838, 1887, 2093],
     [2094, 2143, 1584, 1589, 1590, 1593, 1601, 1626],
     [1633, 1658, 1840, 1845, 1846, 1849, 1857, 1882],
     [1889, 1914, 2096, 2101, 2102, 2105, 2113, 2138],
     [2145, 2170, 1581, 1582, 1631, 1837, 1838, 1887],
     [2093, 2094, 2143, 1584, 1593, 1601, 1626, 1633],
     [1658, 1840, 1849, 1857, 1882, 1889, 1914, 2096],
     [2105, 2113, 2138, 2145, 2170, 1581, 1582, 1631],
     [1837, 1838, 1887, 2093, 2094, 2143, 1584, 1593],
     [1601, 1626, 1633, 1658, 1840, 1849, 1857, 1882],
     [1889, 1914, 2096, 2105, 2113, 2138, 2145, 2170],
     [1581, 1582, 1589, 1631, 1837, 1838, 1845, 1887],
     [2093, 2094, 2101, 2143, 1584, 1588, 1590, 1593],
     [1601, 1626, 1633, 1658, 1840, 1844, 1846, 1849],
     [1857, 1882, 1889, 1914, 2096, 2100, 2102, 2105],
     [2113, 2138, 2145, 2170, 1581, 1582, 1631, 1837],
     [1838, 1887, 2093, 2094, 2143, 1584, 1589, 1590],
     [1593, 1601, 1626, 1633, 1658, 1840, 1845, 1846],
     [1849, 1857, 1882, 1889, 1914, 2096, 2101, 2102],
     [2105, 2113, 2138, 2145, 2170, 1581, 1582, 1631],
     [1837, 1838, 1887, 2093, 2094, 2143, 1584, 1593],
     [1601, 1626, 1633, 1658, 1840, 1849, 1857, 1882],
     [1889, 1914, 2096, 2105, 2113, 2138, 2145, 2170],
     [1581, 1582, 1631, 1837, 1838, 1887, 2093, 2094],
     [2143, 1584, 1593, 1601, 1626, 1633, 1658, 1840],
     [1849, 1857, 1882, 1889, 1914, 2096, 2105, 2113],
     [2138, 2145, 2170, 1581, 1582, 1589, 1631, 1837],
     [1838, 1845, 1887, 2093, 2094, 2101, 2143, 1584],
     [1588, 1590, 1593, 1601, 1626, 1633, 1658, 1840],
     [1844, 1846, 1849, 1857, 1882, 1889, 1914, 2096],
     [2100, 2102, 2105, 2113, 2138, 2145, 2170, 1581],
     [1582, 1631, 1837, 1838, 1887, 2093, 2094, 2143],
     [1584, 1589, 1590, 1593, 1601, 1626, 1633, 1658],
     [1840, 1845, 1846, 1849, 1857, 1882, 1889, 1914],
     [2096, 2101, 2102, 2105, 2113, 2138, 2145, 2170],
     [1594, 1850, 2106, 1584, 1593, 1601, 1606, 1633],
     [1638, 1840, 1849, 1857, 1862, 1889, 1894, 2096],
     [2105, 2113, 2118, 2145, 2150, 1594, 1850, 2106],
     [1584, 1593, 1601, 1606, 1633, 1638, 1840, 1849],
     [1857, 1862, 1889, 1894, 2096, 2105, 2113, 2118],
     [2145, 2150, 1594, 1850, 2106, 1584, 1593, 1601],
     [1606, 1633, 1638, 1840, 1849, 1857, 1862, 1889],
     [1894, 2096, 2105, 2113, 2118, 2145, 2150, 1594],
     [1850, 2106, 1584, 1593, 1601, 1606, 1633, 1638],
     [1840, 1849, 1857, 1862, 1889, 1894, 2096, 2105],
     [2113, 2118, 2145, 2150, 1594, 1850, 2106, 1594],
     [1850, 2106, 1584, 1593, 1601, 1606, 1633, 1638],
     [1840, 1849, 1857, 1862, 1889, 1894, 2096, 2105],
     [2113, 2118, 2145, 2150, 1594, 1850, 2106, 1584],
     [1593, 1601, 1606, 1633, 1638, 1840, 1849, 1857],
     [1862, 1889, 1894, 2096, 2105, 2113, 2118, 2145],
     [2150, 1594, 1850, 2106, 1584, 1593, 1601, 1606],
     [1633, 1638, 1840, 1849, 1857, 1862, 1889, 1894],
     [2096, 2105, 2113, 2118, 2145, 2150, 1594, 1850],
     [2106, 1584, 1593, 1601, 1606, 1633, 1638, 1840],
     [1849, 1857, 1862, 1889, 1894, 2096, 2105, 2113],
     [2118, 2145, 2150, 1594, 1850, 2106, 1594, 1850],
     [2106, 1584, 1593, 1601, 1606, 1633, 1638, 1840],
     [1849, 1857, 1862, 1889, 1894, 2096, 2105, 2113],
     [2118, 2145, 2150, 1594, 1850, 2106, 1584, 1593],
     [1601, 1606, 1633, 1638, 1840, 1849, 1857, 1862],
     [1889, 1894, 2096, 2105, 2113, 2118, 2145, 2150],
     [1594, 1850, 2106, 1584, 1593, 1601, 1606, 1633],
     [1638, 1840, 1849, 1857, 1862, 1889, 1894, 2096],
     [2105, 2113, 2118, 2145, 2150, 1594, 1850, 2106],
     [1584, 1593, 1601, 1606, 1633, 1638, 1840, 1849],
     [1857, 1862, 1889, 1894, 2096, 2105, 2113, 2118],
     [2145, 2150, 1594, 1850, 2106, 1594, 1850, 2106],
     [1584, 1593, 1601, 1606, 1633, 1638, 1840, 1849],
     [1857, 1862, 1889, 1894, 2096, 2105, 2113, 2118],
     [2145, 2150, 1594, 1850, 2106, 1584, 1593, 1601],
     [1606, 1633, 1638, 1840, 1849, 1857, 1862, 1889]]"

definition sup_trans_keys_40 :: "int list list" where
  "sup_trans_keys_40 =
    [[1894, 2096, 2105, 2113, 2118, 2145, 2150, 1594],
     [1850, 2106, 1584, 1593, 1601, 1606, 1633, 1638],
     [1840, 1849, 1857, 1862, 1889, 1894, 2096, 2105],
     [2113, 2118, 2145, 2150, 1594, 1850, 2106, 1584],
     [1593, 1601, 1606, 1633, 1638, 1840, 1849, 1857],
     [1862, 1889, 1894, 2096, 2105, 2113, 2118, 2145],
     [2150, 1594, 1850, 2106, 1594, 1850, 2106, 1584],
     [1593, 1601, 1606, 1633, 1638, 1840, 1849, 1857],
     [1862, 1889, 1894, 2096, 2105, 2113, 2118, 2145],
     [2150, 1594, 1850, 2106, 1584, 1593, 1601, 1606],
     [1633, 1638, 1840, 1849, 1857, 1862, 1889, 1894],
     [2096, 2105, 2113, 2118, 2145, 2150, 1594, 1850],
     [2106, 1584, 1593, 1601, 1606, 1633, 1638, 1840],
     [1849, 1857, 1862, 1889, 1894, 2096, 2105, 2113],
     [2118, 2145, 2150, 1594, 1850, 2106, 1584, 1593],
     [1601, 1606, 1633, 1638, 1840, 1849, 1857, 1862],
     [1889, 1894, 2096, 2105, 2113, 2118, 2145, 2150],
     [1594, 1850, 2106, 1594, 1850, 2106, 1584, 1593],
     [1601, 1606, 1633, 1638, 1840, 1849, 1857, 1862],
     [1889, 1894, 2096, 2105, 2113, 2118, 2145, 2150],
     [1594, 1850, 2106, 1584, 1593, 1601, 1606, 1633],
     [1638, 1840, 1849, 1857, 1862, 1889, 1894, 2096],
     [2105, 2113, 2118, 2145, 2150, 1594, 1850, 2106],
     [1584, 1593, 1601, 1606, 1633, 1638, 1840, 1849],
     [1857, 1862, 1889, 1894, 2096, 2105, 2113, 2118],
     [2145, 2150, 1594, 1850, 2106, 1584, 1593, 1601],
     [1606, 1633, 1638, 1840, 1849, 1857, 1862, 1889],
     [1894, 2096, 2105, 2113, 2118, 2145, 2150, 1594],
     [1850, 2106, 1584, 1585, 1586, 1594, 1840, 1841],
     [1842, 1850, 2096, 2097, 2098, 2106, 1587, 1593],
     [1601, 1606, 1633, 1638, 1843, 1849, 1857, 1862],
     [1889, 1894, 2099, 2105, 2113, 2118, 2145, 2150],
     [1582, 1594, 1838, 1850, 2094, 2106, 1584, 1593],
     [1601, 1606, 1633, 1638, 1840, 1849, 1857, 1862],
     [1889, 1894, 2096, 2105, 2113, 2118, 2145, 2150],
     [1584, 1585, 1586, 1840, 1841, 1842, 2096, 2097],
     [2098, 1587, 1593, 1843, 1849, 2099, 2105, 1582],
     [1838, 2094, 1584, 1585, 1586, 1840, 1841, 1842],
     [2096, 2097, 2098, 1587, 1593, 1843, 1849, 2099],
     [2105, 1582, 1838, 2094, 1584, 1585, 1586, 1840],
     [1841, 1842, 2096, 2097, 2098, 1587, 1593, 1843],
     [1849, 2099, 2105, 1629, 1885, 2141, 0, 575],
     [1033, 1037, 1056, 1594, 1595, 1850, 1851, 2106],
     [2107, 1629, 1885, 2141, 1584, 1593, 1840, 1849],
     [2096, 2105, 1629, 1885, 2141, 1584, 1593, 1840],
     [1849, 2096, 2105, 1589, 1629, 1845, 1885, 2101],
     [2141, 1584, 1588, 1590, 1593, 1840, 1844, 1846],
     [1849, 2096, 2100, 2102, 2105, 1629, 1885, 2141],
     [1584, 1589, 1840, 1845, 2096, 2101, 1582, 1838],
     [2094, 1584, 1593, 1840, 1849, 2096, 2105, 1582],
     [1838, 2094, 1584, 1593, 1840, 1849, 2096, 2105],
     [1582, 1589, 1838, 1845, 2094, 2101, 1584, 1588],
     [1590, 1593, 1840, 1844, 1846, 1849, 2096, 2100],
     [2102, 2105, 1582, 1838, 2094, 1584, 1589, 1840],
     [1845, 2096, 2101, 1582, 1838, 2094, 1584, 1593],
     [1840, 1849, 2096, 2105, 1582, 1838, 2094, 1584],
     [1593, 1840, 1849, 2096, 2105, 1582, 1589, 1838],
     [1845, 2094, 2101, 1584, 1588, 1590, 1593, 1840],
     [1844, 1846, 1849, 2096, 2100, 2102, 2105, 1582],
     [1838, 2094, 1584, 1589, 1840, 1845, 2096, 2101],
     [1594, 1850, 2106, 1584, 1593, 1601, 1606, 1633],
     [1638, 1840, 1849, 1857, 1862, 1889, 1894, 2096],
     [2105, 2113, 2118, 2145, 2150, 1594, 1850, 2106],
     [1584, 1593, 1601, 1606, 1633, 1638, 1840, 1849],
     [1857, 1862, 1889, 1894, 2096, 2105, 2113, 2118],
     [2145, 2150, 1594, 1850, 2106, 1594, 1850, 2106],
     [1584, 1593, 1601, 1606, 1633, 1638, 1840, 1849],
     [1857, 1862, 1889, 1894, 2096, 2105, 2113, 2118],
     [2145, 2150, 1629, 1885, 2141, 1584, 1593, 1601],
     [1606, 1633, 1638, 1840, 1849, 1857, 1862, 1889],
     [1894, 2096, 2105, 2113, 2118, 2145, 2150, 1629],
     [1885, 2141, 1584, 1593, 1601, 1606, 1633, 1638],
     [1840, 1849, 1857, 1862, 1889, 1894, 2096, 2105],
     [2113, 2118, 2145, 2150, 1629, 1885, 2141, 1584],
     [1593, 1601, 1606, 1633, 1638, 1840, 1849, 1857],
     [1862, 1889, 1894, 2096, 2105, 2113, 2118, 2145],
     [2150, 1582, 1594, 1838, 1850, 2094, 2106, 1584],
     [1593, 1601, 1606, 1633, 1638, 1840, 1849, 1857],
     [1862, 1889, 1894, 2096, 2105, 2113, 2118, 2145],
     [2150, 1582, 1594, 1838, 1850, 2094, 2106, 1584],
     [1593, 1601, 1606, 1633, 1638, 1840, 1849, 1857],
     [1862, 1889, 1894, 2096, 2105, 2113, 2118, 2145],
     [2150, 1582, 1594, 1838, 1850, 2094, 2106, 1584],
     [1593, 1601, 1606, 1633, 1638, 1840, 1849, 1857],
     [1862, 1889, 1894, 2096, 2105, 2113, 2118, 2145],
     [2150, 1582, 1589, 1594, 1838, 1845, 1850, 2094],
     [2101, 2106, 1584, 1588, 1590, 1593, 1601, 1606],
     [1633, 1638, 1840, 1844, 1846, 1849, 1857, 1862],
     [1889, 1894, 2096, 2100, 2102, 2105, 2113, 2118],
     [2145, 2150, 1582, 1594, 1838, 1850, 2094, 2106],
     [1584, 1589, 1590, 1593, 1601, 1606, 1633, 1638],
     [1840, 1845, 1846, 1849, 1857, 1862, 1889, 1894],
     [2096, 2101, 2102, 2105, 2113, 2118, 2145, 2150],
     [1582, 1594, 1838, 1850, 2094, 2106, 1584, 1593],
     [1601, 1606, 1633, 1638, 1840, 1849, 1857, 1862],
     [1889, 1894, 2096, 2105, 2113, 2118, 2145, 2150],
     [1582, 1594, 1838, 1850, 2094, 2106, 1584, 1593],
     [1601, 1606, 1633, 1638, 1840, 1849, 1857, 1862],
     [1889, 1894, 2096, 2105, 2113, 2118, 2145, 2150],
     [1629, 1885, 2141, 1584, 1593, 1601, 1606, 1633],
     [1638, 1840, 1849, 1857, 1862, 1889, 1894, 2096],
     [2105, 2113, 2118, 2145, 2150, 1594, 1850, 2106],
     [1584, 1593, 1601, 1606, 1633, 1638, 1840, 1849],
     [1857, 1862, 1889, 1894, 2096, 2105, 2113, 2118],
     [2145, 2150, 1584, 1585, 1586, 1629, 1840, 1841],
     [1842, 1885, 2096, 2097, 2098, 2141, 1587, 1593],
     [1601, 1606, 1633, 1638, 1843, 1849, 1857, 1862],
     [1889, 1894, 2099, 2105, 2113, 2118, 2145, 2150],
     [1582, 1594, 1629, 1838, 1850, 1885, 2094, 2106],
     [2141, 1584, 1593, 1601, 1606, 1633, 1638, 1840],
     [1849, 1857, 1862, 1889, 1894, 2096, 2105, 2113],
     [2118, 2145, 2150, 1594, 1629, 1850, 1885, 2106],
     [2141, 1584, 1593, 1601, 1606, 1633, 1638, 1840],
     [1849, 1857, 1862, 1889, 1894, 2096, 2105, 2113],
     [2118, 2145, 2150, 1594, 1629, 1850, 1885, 2106],
     [2141, 1584, 1593, 1601, 1606, 1633, 1638, 1840],
     [1849, 1857, 1862, 1889, 1894, 2096, 2105, 2113],
     [2118, 2145, 2150, 1594, 1629, 1850, 1885, 2106],
     [2141, 1584, 1593, 1601, 1606, 1633, 1638, 1840],
     [1849, 1857, 1862, 1889, 1894, 2096, 2105, 2113],
     [2118, 2145, 2150, 1582, 1594, 1629, 1838, 1850],
     [1885, 2094, 2106, 2141, 1584, 1593, 1601, 1606],
     [1633, 1638, 1840, 1849, 1857, 1862, 1889, 1894],
     [2096, 2105, 2113, 2118, 2145, 2150, 1582, 1594],
     [1629, 1838, 1850, 1885, 2094, 2106, 2141, 1584],
     [1593, 1601, 1606, 1633, 1638, 1840, 1849, 1857],
     [1862, 1889, 1894, 2096, 2105, 2113, 2118, 2145],
     [2150, 1582, 1594, 1629, 1838, 1850, 1885, 2094],
     [2106, 2141, 1584, 1593, 1601, 1606, 1633, 1638],
     [1840, 1849, 1857, 1862, 1889, 1894, 2096, 2105],
     [2113, 2118, 2145, 2150, 1582, 1589, 1594, 1629],
     [1838, 1845, 1850, 1885, 2094, 2101, 2106, 2141],
     [1584, 1588, 1590, 1593, 1601, 1606, 1633, 1638],
     [1840, 1844, 1846, 1849, 1857, 1862, 1889, 1894],
     [2096, 2100, 2102, 2105, 2113, 2118, 2145, 2150],
     [1582, 1594, 1629, 1838, 1850, 1885, 2094, 2106],
     [2141, 1584, 1589, 1590, 1593, 1601, 1606, 1633],
     [1638, 1840, 1845, 1846, 1849, 1857, 1862, 1889],
     [1894, 2096, 2101, 2102, 2105, 2113, 2118, 2145],
     [2150, 1582, 1594, 1629, 1838, 1850, 1885, 2094],
     [2106, 2141, 1584, 1593, 1601, 1606, 1633, 1638],
     [1840, 1849, 1857, 1862, 1889, 1894, 2096, 2105],
     [2113, 2118, 2145, 2150, 1582, 1594, 1629, 1838],
     [1850, 1885, 2094, 2106, 2141, 1584, 1593, 1601],
     [1606, 1633, 1638, 1840, 1849, 1857, 1862, 1889],
     [1894, 2096, 2105, 2113, 2118, 2145, 2150, 1594],
     [1629, 1850, 1885, 2106, 2141, 1584, 1593, 1601],
     [1606, 1633, 1638, 1840, 1849, 1857, 1862, 1889],
     [1894, 2096, 2105, 2113, 2118, 2145, 2150, 1584],
     [1585, 1586, 1629, 1840, 1841, 1842, 1885, 2096]]"

definition sup_trans_keys_41 :: "int list list" where
  "sup_trans_keys_41 =
    [[2097, 2098, 2141, 1587, 1593, 1601, 1606, 1633],
     [1638, 1843, 1849, 1857, 1862, 1889, 1894, 2099],
     [2105, 2113, 2118, 2145, 2150, 1582, 1594, 1629],
     [1838, 1850, 1885, 2094, 2106, 2141, 1584, 1593],
     [1601, 1606, 1633, 1638, 1840, 1849, 1857, 1862],
     [1889, 1894, 2096, 2105, 2113, 2118, 2145, 2150],
     [1594, 1629, 1850, 1885, 2106, 2141, 1584, 1593],
     [1601, 1606, 1633, 1638, 1840, 1849, 1857, 1862],
     [1889, 1894, 2096, 2105, 2113, 2118, 2145, 2150],
     [1594, 1629, 1850, 1885, 2106, 2141, 1584, 1593],
     [1601, 1606, 1633, 1638, 1840, 1849, 1857, 1862],
     [1889, 1894, 2096, 2105, 2113, 2118, 2145, 2150],
     [1594, 1629, 1850, 1885, 2106, 2141, 1584, 1585],
     [1586, 1840, 1841, 1842, 2096, 2097, 2098, 1587],
     [1593, 1601, 1606, 1633, 1638, 1843, 1849, 1857],
     [1862, 1889, 1894, 2099, 2105, 2113, 2118, 2145],
     [2150, 1582, 1594, 1629, 1838, 1850, 1885, 2094],
     [2106, 2141, 1584, 1593, 1601, 1606, 1633, 1638],
     [1840, 1849, 1857, 1862, 1889, 1894, 2096, 2105],
     [2113, 2118, 2145, 2150, 1582, 1594, 1629, 1838],
     [1850, 1885, 2094, 2106, 2141, 1584, 1593, 1601],
     [1606, 1633, 1638, 1840, 1849, 1857, 1862, 1889],
     [1894, 2096, 2105, 2113, 2118, 2145, 2150, 1582],
     [1594, 1629, 1838, 1850, 1885, 2094, 2106, 2141],
     [1584, 1593, 1601, 1606, 1633, 1638, 1840, 1849],
     [1857, 1862, 1889, 1894, 2096, 2105, 2113, 2118],
     [2145, 2150, 1582, 1589, 1594, 1629, 1838, 1845],
     [1850, 1885, 2094, 2101, 2106, 2141, 1584, 1588],
     [1590, 1593, 1601, 1606, 1633, 1638, 1840, 1844],
     [1846, 1849, 1857, 1862, 1889, 1894, 2096, 2100],
     [2102, 2105, 2113, 2118, 2145, 2150, 1582, 1594],
     [1629, 1838, 1850, 1885, 2094, 2106, 2141, 1584],
     [1589, 1590, 1593, 1601, 1606, 1633, 1638, 1840],
     [1845, 1846, 1849, 1857, 1862, 1889, 1894, 2096],
     [2101, 2102, 2105, 2113, 2118, 2145, 2150, 1582],
     [1594, 1629, 1838, 1850, 1885, 2094, 2106, 2141],
     [1584, 1593, 1601, 1606, 1633, 1638, 1840, 1849],
     [1857, 1862, 1889, 1894, 2096, 2105, 2113, 2118],
     [2145, 2150, 1582, 1594, 1629, 1838, 1850, 1885],
     [2094, 2106, 2141, 1584, 1593, 1601, 1606, 1633],
     [1638, 1840, 1849, 1857, 1862, 1889, 1894, 2096],
     [2105, 2113, 2118, 2145, 2150, 1594, 1629, 1850],
     [1885, 2106, 2141, 1584, 1593, 1601, 1606, 1633],
     [1638, 1840, 1849, 1857, 1862, 1889, 1894, 2096],
     [2105, 2113, 2118, 2145, 2150, 1584, 1585, 1586],
     [1629, 1840, 1841, 1842, 1885, 2096, 2097, 2098],
     [2141, 1587, 1593, 1601, 1606, 1633, 1638, 1843],
     [1849, 1857, 1862, 1889, 1894, 2099, 2105, 2113],
     [2118, 2145, 2150, 1582, 1594, 1629, 1838, 1850],
     [1885, 2094, 2106, 2141, 1584, 1593, 1601, 1606],
     [1633, 1638, 1840, 1849, 1857, 1862, 1889, 1894],
     [2096, 2105, 2113, 2118, 2145, 2150, 1594, 1629],
     [1850, 1885, 2106, 2141, 1584, 1593, 1601, 1606],
     [1633, 1638, 1840, 1849, 1857, 1862, 1889, 1894],
     [2096, 2105, 2113, 2118, 2145, 2150, 1594, 1629],
     [1850, 1885, 2106, 2141, 1584, 1593, 1601, 1606],
     [1633, 1638, 1840, 1849, 1857, 1862, 1889, 1894],
     [2096, 2105, 2113, 2118, 2145, 2150, 1594, 1629],
     [1850, 1885, 2106, 2141, 1584, 1585, 1586, 1840],
     [1841, 1842, 2096, 2097, 2098, 1587, 1593, 1601],
     [1606, 1633, 1638, 1843, 1849, 1857, 1862, 1889],
     [1894, 2099, 2105, 2113, 2118, 2145, 2150, 1582],
     [1594, 1629, 1838, 1850, 1885, 2094, 2106, 2141],
     [1584, 1593, 1601, 1606, 1633, 1638, 1840, 1849],
     [1857, 1862, 1889, 1894, 2096, 2105, 2113, 2118],
     [2145, 2150, 1582, 1594, 1629, 1838, 1850, 1885],
     [2094, 2106, 2141, 1584, 1593, 1601, 1606, 1633],
     [1638, 1840, 1849, 1857, 1862, 1889, 1894, 2096],
     [2105, 2113, 2118, 2145, 2150, 1582, 1594, 1629],
     [1838, 1850, 1885, 2094, 2106, 2141, 1584, 1593],
     [1601, 1606, 1633, 1638, 1840, 1849, 1857, 1862],
     [1889, 1894, 2096, 2105, 2113, 2118, 2145, 2150],
     [1582, 1589, 1594, 1629, 1838, 1845, 1850, 1885],
     [2094, 2101, 2106, 2141, 1584, 1588, 1590, 1593],
     [1601, 1606, 1633, 1638, 1840, 1844, 1846, 1849],
     [1857, 1862, 1889, 1894, 2096, 2100, 2102, 2105],
     [2113, 2118, 2145, 2150, 1582, 1594, 1629, 1838],
     [1850, 1885, 2094, 2106, 2141, 1584, 1589, 1590],
     [1593, 1601, 1606, 1633, 1638, 1840, 1845, 1846],
     [1849, 1857, 1862, 1889, 1894, 2096, 2101, 2102],
     [2105, 2113, 2118, 2145, 2150, 1582, 1594, 1629],
     [1838, 1850, 1885, 2094, 2106, 2141, 1584, 1593],
     [1601, 1606, 1633, 1638, 1840, 1849, 1857, 1862],
     [1889, 1894, 2096, 2105, 2113, 2118, 2145, 2150],
     [1582, 1594, 1629, 1838, 1850, 1885, 2094, 2106],
     [2141, 1584, 1593, 1601, 1606, 1633, 1638, 1840],
     [1849, 1857, 1862, 1889, 1894, 2096, 2105, 2113],
     [2118, 2145, 2150, 1594, 1629, 1850, 1885, 2106],
     [2141, 1584, 1593, 1601, 1606, 1633, 1638, 1840],
     [1849, 1857, 1862, 1889, 1894, 2096, 2105, 2113],
     [2118, 2145, 2150, 1584, 1585, 1586, 1629, 1840],
     [1841, 1842, 1885, 2096, 2097, 2098, 2141, 1587],
     [1593, 1601, 1606, 1633, 1638, 1843, 1849, 1857],
     [1862, 1889, 1894, 2099, 2105, 2113, 2118, 2145],
     [2150, 1582, 1594, 1629, 1838, 1850, 1885, 2094],
     [2106, 2141, 1584, 1593, 1601, 1606, 1633, 1638],
     [1840, 1849, 1857, 1862, 1889, 1894, 2096, 2105],
     [2113, 2118, 2145, 2150, 1594, 1629, 1850, 1885],
     [2106, 2141, 1584, 1593, 1601, 1606, 1633, 1638],
     [1840, 1849, 1857, 1862, 1889, 1894, 2096, 2105],
     [2113, 2118, 2145, 2150, 1594, 1629, 1850, 1885],
     [2106, 2141, 1584, 1593, 1601, 1606, 1633, 1638],
     [1840, 1849, 1857, 1862, 1889, 1894, 2096, 2105],
     [2113, 2118, 2145, 2150, 1594, 1629, 1850, 1885],
     [2106, 2141, 1584, 1585, 1586, 1840, 1841, 1842],
     [2096, 2097, 2098, 1587, 1593, 1601, 1606, 1633],
     [1638, 1843, 1849, 1857, 1862, 1889, 1894, 2099],
     [2105, 2113, 2118, 2145, 2150, 1582, 1594, 1629],
     [1838, 1850, 1885, 2094, 2106, 2141, 1584, 1593],
     [1601, 1606, 1633, 1638, 1840, 1849, 1857, 1862],
     [1889, 1894, 2096, 2105, 2113, 2118, 2145, 2150],
     [1582, 1594, 1629, 1838, 1850, 1885, 2094, 2106],
     [2141, 1584, 1593, 1601, 1606, 1633, 1638, 1840],
     [1849, 1857, 1862, 1889, 1894, 2096, 2105, 2113],
     [2118, 2145, 2150, 1582, 1594, 1629, 1838, 1850],
     [1885, 2094, 2106, 2141, 1584, 1593, 1601, 1606],
     [1633, 1638, 1840, 1849, 1857, 1862, 1889, 1894],
     [2096, 2105, 2113, 2118, 2145, 2150, 1582, 1589],
     [1594, 1629, 1838, 1845, 1850, 1885, 2094, 2101],
     [2106, 2141, 1584, 1588, 1590, 1593, 1601, 1606],
     [1633, 1638, 1840, 1844, 1846, 1849, 1857, 1862],
     [1889, 1894, 2096, 2100, 2102, 2105, 2113, 2118],
     [2145, 2150, 1582, 1594, 1629, 1838, 1850, 1885],
     [2094, 2106, 2141, 1584, 1589, 1590, 1593, 1601],
     [1606, 1633, 1638, 1840, 1845, 1846, 1849, 1857],
     [1862, 1889, 1894, 2096, 2101, 2102, 2105, 2113],
     [2118, 2145, 2150, 1582, 1594, 1629, 1838, 1850],
     [1885, 2094, 2106, 2141, 1584, 1593, 1601, 1606],
     [1633, 1638, 1840, 1849, 1857, 1862, 1889, 1894],
     [2096, 2105, 2113, 2118, 2145, 2150, 1582, 1594],
     [1629, 1838, 1850, 1885, 2094, 2106, 2141, 1584],
     [1593, 1601, 1606, 1633, 1638, 1840, 1849, 1857],
     [1862, 1889, 1894, 2096, 2105, 2113, 2118, 2145],
     [2150, 1594, 1629, 1850, 1885, 2106, 2141, 1584],
     [1593, 1601, 1606, 1633, 1638, 1840, 1849, 1857],
     [1862, 1889, 1894, 2096, 2105, 2113, 2118, 2145],
     [2150, 1584, 1585, 1586, 1629, 1840, 1841, 1842],
     [1885, 2096, 2097, 2098, 2141, 1587, 1593, 1601],
     [1606, 1633, 1638, 1843, 1849, 1857, 1862, 1889],
     [1894, 2099, 2105, 2113, 2118, 2145, 2150, 1582],
     [1594, 1629, 1838, 1850, 1885, 2094, 2106, 2141],
     [1584, 1593, 1601, 1606, 1633, 1638, 1840, 1849],
     [1857, 1862, 1889, 1894, 2096, 2105, 2113, 2118],
     [2145, 2150, 1594, 1629, 1850, 1885, 2106, 2141],
     [1584, 1593, 1601, 1606, 1633, 1638, 1840, 1849],
     [1857, 1862, 1889, 1894, 2096, 2105, 2113, 2118],
     [2145, 2150, 1594, 1629, 1850, 1885, 2106, 2141],
     [1584, 1593, 1601, 1606, 1633, 1638, 1840, 1849],
     [1857, 1862, 1889, 1894, 2096, 2105, 2113, 2118],
     [2145, 2150, 1594, 1629, 1850, 1885, 2106, 2141]]"

definition sup_trans_keys_42 :: "int list list" where
  "sup_trans_keys_42 =
    [[1584, 1585, 1586, 1840, 1841, 1842, 2096, 2097],
     [2098, 1587, 1593, 1601, 1606, 1633, 1638, 1843],
     [1849, 1857, 1862, 1889, 1894, 2099, 2105, 2113],
     [2118, 2145, 2150, 1582, 1594, 1629, 1838, 1850],
     [1885, 2094, 2106, 2141, 1584, 1593, 1601, 1606],
     [1633, 1638, 1840, 1849, 1857, 1862, 1889, 1894],
     [2096, 2105, 2113, 2118, 2145, 2150, 1582, 1594],
     [1629, 1838, 1850, 1885, 2094, 2106, 2141, 1584],
     [1593, 1601, 1606, 1633, 1638, 1840, 1849, 1857],
     [1862, 1889, 1894, 2096, 2105, 2113, 2118, 2145],
     [2150, 1582, 1594, 1629, 1838, 1850, 1885, 2094],
     [2106, 2141, 1584, 1593, 1601, 1606, 1633, 1638],
     [1840, 1849, 1857, 1862, 1889, 1894, 2096, 2105],
     [2113, 2118, 2145, 2150, 1582, 1589, 1594, 1629],
     [1838, 1845, 1850, 1885, 2094, 2101, 2106, 2141],
     [1584, 1588, 1590, 1593, 1601, 1606, 1633, 1638],
     [1840, 1844, 1846, 1849, 1857, 1862, 1889, 1894],
     [2096, 2100, 2102, 2105, 2113, 2118, 2145, 2150],
     [1582, 1594, 1629, 1838, 1850, 1885, 2094, 2106],
     [2141, 1584, 1589, 1590, 1593, 1601, 1606, 1633],
     [1638, 1840, 1845, 1846, 1849, 1857, 1862, 1889],
     [1894, 2096, 2101, 2102, 2105, 2113, 2118, 2145],
     [2150, 1582, 1594, 1629, 1838, 1850, 1885, 2094],
     [2106, 2141, 1584, 1593, 1601, 1606, 1633, 1638],
     [1840, 1849, 1857, 1862, 1889, 1894, 2096, 2105],
     [2113, 2118, 2145, 2150, 1582, 1594, 1629, 1838],
     [1850, 1885, 2094, 2106, 2141, 1584, 1593, 1601],
     [1606, 1633, 1638, 1840, 1849, 1857, 1862, 1889],
     [1894, 2096, 2105, 2113, 2118, 2145, 2150, 1594],
     [1629, 1850, 1885, 2106, 2141, 1584, 1593, 1601],
     [1606, 1633, 1638, 1840, 1849, 1857, 1862, 1889],
     [1894, 2096, 2105, 2113, 2118, 2145, 2150, 1594],
     [1850, 2106, 1584, 1585, 1586, 1629, 1840, 1841],
     [1842, 1885, 2096, 2097, 2098, 2141, 1587, 1593],
     [1601, 1606, 1633, 1638, 1843, 1849, 1857, 1862],
     [1889, 1894, 2099, 2105, 2113, 2118, 2145, 2150],
     [1582, 1594, 1629, 1838, 1850, 1885, 2094, 2106],
     [2141, 1584, 1593, 1601, 1606, 1633, 1638, 1840],
     [1849, 1857, 1862, 1889, 1894, 2096, 2105, 2113],
     [2118, 2145, 2150, 1594, 1629, 1850, 1885, 2106],
     [2141, 1584, 1593, 1601, 1606, 1633, 1638, 1840],
     [1849, 1857, 1862, 1889, 1894, 2096, 2105, 2113],
     [2118, 2145, 2150, 1594, 1629, 1850, 1885, 2106],
     [2141, 1584, 1593, 1601, 1606, 1633, 1638, 1840],
     [1849, 1857, 1862, 1889, 1894, 2096, 2105, 2113],
     [2118, 2145, 2150, 1594, 1629, 1850, 1885, 2106],
     [2141, 1584, 1585, 1586, 1840, 1841, 1842, 2096],
     [2097, 2098, 1587, 1593, 1601, 1606, 1633, 1638],
     [1843, 1849, 1857, 1862, 1889, 1894, 2099, 2105],
     [2113, 2118, 2145, 2150, 1582, 1594, 1629, 1838],
     [1850, 1885, 2094, 2106, 2141, 1584, 1593, 1601],
     [1606, 1633, 1638, 1840, 1849, 1857, 1862, 1889],
     [1894, 2096, 2105, 2113, 2118, 2145, 2150, 1582],
     [1594, 1629, 1838, 1850, 1885, 2094, 2106, 2141],
     [1584, 1593, 1601, 1606, 1633, 1638, 1840, 1849],
     [1857, 1862, 1889, 1894, 2096, 2105, 2113, 2118],
     [2145, 2150, 1582, 1594, 1629, 1838, 1850, 1885],
     [2094, 2106, 2141, 1584, 1593, 1601, 1606, 1633],
     [1638, 1840, 1849, 1857, 1862, 1889, 1894, 2096],
     [2105, 2113, 2118, 2145, 2150, 1582, 1589, 1594],
     [1629, 1838, 1845, 1850, 1885, 2094, 2101, 2106],
     [2141, 1584, 1588, 1590, 1593, 1601, 1606, 1633],
     [1638, 1840, 1844, 1846, 1849, 1857, 1862, 1889],
     [1894, 2096, 2100, 2102, 2105, 2113, 2118, 2145],
     [2150, 1582, 1594, 1629, 1838, 1850, 1885, 2094],
     [2106, 2141, 1584, 1589, 1590, 1593, 1601, 1606],
     [1633, 1638, 1840, 1845, 1846, 1849, 1857, 1862],
     [1889, 1894, 2096, 2101, 2102, 2105, 2113, 2118],
     [2145, 2150, 1582, 1594, 1629, 1838, 1850, 1885],
     [2094, 2106, 2141, 1584, 1593, 1601, 1606, 1633],
     [1638, 1840, 1849, 1857, 1862, 1889, 1894, 2096],
     [2105, 2113, 2118, 2145, 2150, 1582, 1594, 1629],
     [1838, 1850, 1885, 2094, 2106, 2141, 1584, 1593],
     [1601, 1606, 1633, 1638, 1840, 1849, 1857, 1862],
     [1889, 1894, 2096, 2105, 2113, 2118, 2145, 2150],
     [1594, 1629, 1850, 1885, 2106, 2141, 1584, 1593],
     [1601, 1606, 1633, 1638, 1840, 1849, 1857, 1862],
     [1889, 1894, 2096, 2105, 2113, 2118, 2145, 2150],
     [556, 571, 575, 1569, 1573, 1581, 1582, 1583],
     [1594, 1597, 1600, 1631, 1662, 1825, 1829, 1837],
     [1838, 1839, 1850, 1853, 1856, 1887, 1918, 2081],
     [2085, 2093, 2094, 2095, 2106, 2109, 2112, 2143],
     [2174, 1571, 1579, 1584, 1593, 1601, 1626, 1633],
     [1658, 1827, 1835, 1840, 1849, 1857, 1882, 1889],
     [1914, 2083, 2091, 2096, 2105, 2113, 2138, 2145],
     [2170, 556, 571, 575, 1569, 1573, 1581, 1594],
     [1597, 1600, 1631, 1662, 1825, 1829, 1837, 1850],
     [1853, 1856, 1887, 1918, 2081, 2085, 2093, 2106],
     [2109, 2112, 2143, 2174, 1571, 1579, 1582, 1583],
     [1584, 1593, 1601, 1626, 1633, 1658, 1827, 1835],
     [1838, 1839, 1840, 1849, 1857, 1882, 1889, 1914],
     [2083, 2091, 2094, 2095, 2096, 2105, 2113, 2138],
     [2145, 2170, 556, 571, 575, 1569, 1573, 1581],
     [1582, 1583, 1594, 1597, 1600, 1631, 1662, 1825],
     [1829, 1837, 1838, 1839, 1850, 1853, 1856, 1887],
     [1918, 2081, 2085, 2093, 2094, 2095, 2106, 2109],
     [2112, 2143, 2174, 1571, 1579, 1584, 1593, 1601],
     [1626, 1633, 1658, 1827, 1835, 1840, 1849, 1857],
     [1882, 1889, 1914, 2083, 2091, 2096, 2105, 2113],
     [2138, 2145, 2170, 556, 571, 575, 1569, 1573],
     [1594, 1597, 1600, 1631, 1662, 1825, 1829, 1850],
     [1853, 1856, 1887, 1918, 2081, 2085, 2106, 2109],
     [2112, 2143, 2174, 1571, 1579, 1581, 1583, 1584],
     [1593, 1601, 1626, 1633, 1658, 1827, 1835, 1837],
     [1839, 1840, 1849, 1857, 1882, 1889, 1914, 2083],
     [2091, 2093, 2095, 2096, 2105, 2113, 2138, 2145],
     [2170, 0, 556, 575, 1033, 1037, 1056, 1569],
     [1573, 1581, 1582, 1583, 1594, 1595, 1597, 1600],
     [1631, 1662, 1825, 1829, 1837, 1838, 1839, 1850],
     [1851, 1853, 1856, 1887, 1918, 2081, 2085, 2093],
     [2094, 2095, 2106, 2107, 2109, 2112, 2143, 2174],
     [1571, 1579, 1584, 1593, 1601, 1626, 1633, 1658],
     [1827, 1835, 1840, 1849, 1857, 1882, 1889, 1914],
     [2083, 2091, 2096, 2105, 2113, 2138, 2145, 2170],
     [556, 571, 575, 1569, 1573, 1581, 1594, 1597],
     [1600, 1631, 1662, 1825, 1829, 1837, 1850, 1853],
     [1856, 1887, 1918, 2081, 2085, 2093, 2106, 2109],
     [2112, 2143, 2174, 1571, 1579, 1582, 1583, 1584],
     [1593, 1601, 1626, 1633, 1658, 1827, 1835, 1838],
     [1839, 1840, 1849, 1857, 1882, 1889, 1914, 2083],
     [2091, 2094, 2095, 2096, 2105, 2113, 2138, 2145],
     [2170, 0, 556, 575, 1033, 1037, 1056, 1569],
     [1573, 1594, 1595, 1597, 1600, 1631, 1662, 1825],
     [1829, 1850, 1851, 1853, 1856, 1887, 1918, 2081],
     [2085, 2106, 2107, 2109, 2112, 2143, 2174, 1571],
     [1579, 1581, 1583, 1584, 1593, 1601, 1626, 1633],
     [1658, 1827, 1835, 1837, 1839, 1840, 1849, 1857],
     [1882, 1889, 1914, 2083, 2091, 2093, 2095, 2096],
     [2105, 2113, 2138, 2145, 2170, 556, 1569, 1573],
     [1584, 1590, 1597, 1600, 1631, 1662, 1825, 1829],
     [1840, 1846, 1853, 1856, 1887, 1918, 2081, 2085],
     [2096, 2102, 2109, 2112, 2143, 2174, 1572, 1579],
     [1581, 1582, 1585, 1589, 1591, 1593, 1601, 1626],
     [1633, 1658, 1828, 1835, 1837, 1838, 1841, 1845],
     [1847, 1849, 1857, 1882, 1889, 1914, 2084, 2091],
     [2093, 2094, 2097, 2101, 2103, 2105, 2113, 2138],
     [2145, 2170, 556, 1569, 1573, 1584, 1597, 1600],
     [1631, 1662, 1825, 1829, 1840, 1853, 1856, 1887],
     [1918, 2081, 2085, 2096, 2109, 2112, 2143, 2174],
     [1572, 1579, 1581, 1582, 1585, 1593, 1601, 1626],
     [1633, 1658, 1828, 1835, 1837, 1838, 1841, 1849],
     [1857, 1882, 1889, 1914, 2084, 2091, 2093, 2094],
     [2097, 2105, 2113, 2138, 2145, 2170, 556, 1569],
     [1573, 1584, 1597, 1600, 1631, 1662, 1825, 1829],
     [1840, 1853, 1856, 1887, 1918, 2081, 2085, 2096],
     [2109, 2112, 2143, 2174, 1572, 1579, 1581, 1582],
     [1585, 1593, 1601, 1626, 1633, 1658, 1828, 1835],
     [1837, 1838, 1841, 1849, 1857, 1882, 1889, 1914],
     [2084, 2091, 2093, 2094, 2097, 2105, 2113, 2138],
     [2145, 2170, 556, 1569, 1573, 1584, 1597, 1600]]"

definition sup_trans_keys_43 :: "int list list" where
  "sup_trans_keys_43 =
    [[1631, 1662, 1825, 1829, 1840, 1853, 1856, 1887],
     [1918, 2081, 2085, 2096, 2109, 2112, 2143, 2174],
     [1572, 1579, 1581, 1582, 1585, 1593, 1601, 1626],
     [1633, 1658, 1828, 1835, 1837, 1838, 1841, 1849],
     [1857, 1882, 1889, 1914, 2084, 2091, 2093, 2094],
     [2097, 2105, 2113, 2138, 2145, 2170, 0, 556],
     [575, 1033, 1037, 1056, 1569, 1573, 1595, 1597],
     [1600, 1631, 1662, 1825, 1829, 1851, 1853, 1856],
     [1887, 1918, 2081, 2085, 2107, 2109, 2112, 2143],
     [2174, 1572, 1579, 1581, 1582, 1584, 1593, 1601],
     [1626, 1633, 1658, 1828, 1835, 1837, 1838, 1840],
     [1849, 1857, 1882, 1889, 1914, 2084, 2091, 2093],
     [2094, 2096, 2105, 2113, 2138, 2145, 2170, 0],
     [556, 575, 1033, 1037, 1056, 1569, 1573, 1595],
     [1597, 1600, 1631, 1662, 1825, 1829, 1851, 1853],
     [1856, 1887, 1918, 2081, 2085, 2107, 2109, 2112],
     [2143, 2174, 1572, 1579, 1581, 1582, 1584, 1593],
     [1601, 1626, 1633, 1658, 1828, 1835, 1837, 1838],
     [1840, 1849, 1857, 1882, 1889, 1914, 2084, 2091],
     [2093, 2094, 2096, 2105, 2113, 2138, 2145, 2170],
     [0, 556, 575, 1033, 1037, 1056, 1569, 1573],
     [1595, 1597, 1600, 1631, 1662, 1825, 1829, 1851],
     [1853, 1856, 1887, 1918, 2081, 2085, 2107, 2109],
     [2112, 2143, 2174, 1572, 1579, 1581, 1582, 1584],
     [1593, 1601, 1626, 1633, 1658, 1828, 1835, 1837],
     [1838, 1840, 1849, 1857, 1882, 1889, 1914, 2084],
     [2091, 2093, 2094, 2096, 2105, 2113, 2138, 2145],
     [2170, 0, 556, 575, 1033, 1037, 1056, 1569],
     [1573, 1595, 1597, 1600, 1631, 1662, 1825, 1829],
     [1851, 1853, 1856, 1887, 1918, 2081, 2085, 2107],
     [2109, 2112, 2143, 2174, 1572, 1579, 1581, 1582],
     [1584, 1593, 1601, 1626, 1633, 1658, 1828, 1835],
     [1837, 1838, 1840, 1849, 1857, 1882, 1889, 1914],
     [2084, 2091, 2093, 2094, 2096, 2105, 2113, 2138],
     [2145, 2170, 0, 556, 575, 1033, 1037, 1056],
     [1569, 1573, 1595, 1597, 1600, 1631, 1662, 1825],
     [1829, 1851, 1853, 1856, 1887, 1918, 2081, 2085],
     [2107, 2109, 2112, 2143, 2174, 1572, 1579, 1581],
     [1582, 1584, 1593, 1601, 1626, 1633, 1658, 1828],
     [1835, 1837, 1838, 1840, 1849, 1857, 1882, 1889],
     [1914, 2084, 2091, 2093, 2094, 2096, 2105, 2113],
     [2138, 2145, 2170, 0, 556, 575, 1033, 1037],
     [1056, 1569, 1573, 1589, 1595, 1597, 1600, 1631],
     [1662, 1825, 1829, 1845, 1851, 1853, 1856, 1887],
     [1918, 2081, 2085, 2101, 2107, 2109, 2112, 2143],
     [2174, 1572, 1579, 1581, 1582, 1584, 1588, 1590],
     [1593, 1601, 1626, 1633, 1658, 1828, 1835, 1837],
     [1838, 1840, 1844, 1846, 1849, 1857, 1882, 1889],
     [1914, 2084, 2091, 2093, 2094, 2096, 2100, 2102],
     [2105, 2113, 2138, 2145, 2170, 0, 556, 575],
     [1033, 1037, 1056, 1569, 1573, 1589, 1595, 1597],
     [1600, 1631, 1662, 1825, 1829, 1845, 1851, 1853],
     [1856, 1887, 1918, 2081, 2085, 2101, 2107, 2109],
     [2112, 2143, 2174, 1572, 1579, 1581, 1582, 1584],
     [1588, 1590, 1593, 1601, 1626, 1633, 1658, 1828],
     [1835, 1837, 1838, 1840, 1844, 1846, 1849, 1857],
     [1882, 1889, 1914, 2084, 2091, 2093, 2094, 2096],
     [2100, 2102, 2105, 2113, 2138, 2145, 2170, 0],
     [556, 575, 1033, 1037, 1056, 1569, 1573, 1587],
     [1595, 1597, 1600, 1631, 1662, 1825, 1829, 1843],
     [1851, 1853, 1856, 1887, 1918, 2081, 2085, 2099],
     [2107, 2109, 2112, 2143, 2174, 1572, 1579, 1581],
     [1582, 1584, 1586, 1588, 1593, 1601, 1626, 1633],
     [1658, 1828, 1835, 1837, 1838, 1840, 1842, 1844],
     [1849, 1857, 1882, 1889, 1914, 2084, 2091, 2093],
     [2094, 2096, 2098, 2100, 2105, 2113, 2138, 2145],
     [2170, 0, 556, 575, 1033, 1037, 1056, 1569],
     [1573, 1595, 1597, 1600, 1631, 1662, 1825, 1829],
     [1851, 1853, 1856, 1887, 1918, 2081, 2085, 2107],
     [2109, 2112, 2143, 2174, 1572, 1579, 1581, 1582],
     [1584, 1589, 1590, 1593, 1601, 1626, 1633, 1658],
     [1828, 1835, 1837, 1838, 1840, 1845, 1846, 1849],
     [1857, 1882, 1889, 1914, 2084, 2091, 2093, 2094],
     [2096, 2101, 2102, 2105, 2113, 2138, 2145, 2170],
     [547, 548, 550, 556, 559, 570, 571, 573],
     [575, 576, 603, 605, 1033, 1037, 1056, 1120],
     [1569, 1573, 1575, 1612, 1615, 1620, 1631, 1644],
     [1647, 1652, 1662, 1825, 1829, 1831, 1887, 1918],
     [2081, 2085, 2087, 2124, 2127, 2132, 2143, 2156],
     [2159, 2164, 2174, 552, 553, 1578, 1579, 1581],
     [1582, 1584, 1593, 1601, 1626, 1633, 1658, 1834],
     [1835, 1837, 1838, 1840, 1849, 1857, 1882, 1889],
     [1914, 2090, 2091, 2093, 2094, 2096, 2105, 2113],
     [2138, 2145, 2170, 0, 547, 548, 550, 556],
     [559, 570, 575, 576, 603, 605, 1033, 1037],
     [1056, 1120, 1569, 1573, 1575, 1595, 1597, 1631],
     [1662, 1825, 1829, 1831, 1851, 1853, 1887, 1918],
     [2081, 2085, 2087, 2107, 2109, 2143, 2174, 552],
     [553, 1578, 1579, 1581, 1582, 1584, 1593, 1601],
     [1626, 1633, 1658, 1834, 1835, 1837, 1838, 1840],
     [1849, 1857, 1882, 1889, 1914, 2090, 2091, 2093],
     [2094, 2096, 2105, 2113, 2138, 2145, 2170, 0],
     [1033, 1037, 1056, 1057, 1061, 1063, 1083, 1085],
     [1150, 1066, 1067, 1069, 1070, 1095, 1114, 1119],
     [1120, 1127, 1146, 1584, 1593, 1601, 1606, 1633],
     [1638, 1840, 1849, 1857, 1862, 1889, 1894, 2096],
     [2105, 2113, 2118, 2145, 2150, 0, 1033, 1037],
     [1056, 1057, 1061, 1063, 1083, 1085, 1150, 1066],
     [1067, 1069, 1070, 1095, 1114, 1119, 1120, 1127],
     [1146, 1584, 1593, 1601, 1606, 1633, 1638, 1840],
     [1849, 1857, 1862, 1889, 1894, 2096, 2105, 2113],
     [2118, 2145, 2150, 0, 547, 548, 550, 556],
     [559, 570, 571, 573, 575, 576, 605, 1033],
     [1037, 1056, 1058, 1120, 1569, 1573, 1575, 1627],
     [1631, 1662, 1825, 1829, 1831, 1883, 1887, 1918],
     [2081, 2085, 2087, 2139, 2143, 2174, 552, 553],
     [1578, 1579, 1581, 1582, 1584, 1593, 1601, 1626],
     [1633, 1658, 1834, 1835, 1837, 1838, 1840, 1849],
     [1857, 1882, 1889, 1914, 2090, 2091, 2093, 2094],
     [2096, 2105, 2113, 2138, 2145, 2170, 0, 547],
     [548, 550, 556, 559, 570, 573, 575, 576],
     [603, 605, 1033, 1037, 1056, 1120, 1569, 1573],
     [1575, 1595, 1631, 1662, 1825, 1829, 1831, 1851],
     [1887, 1918, 2081, 2085, 2087, 2107, 2143, 2174],
     [552, 553, 1578, 1579, 1581, 1582, 1584, 1593],
     [1601, 1626, 1633, 1658, 1834, 1835, 1837, 1838],
     [1840, 1849, 1857, 1882, 1889, 1914, 2090, 2091],
     [2093, 2094, 2096, 2105, 2113, 2138, 2145, 2170],
     [0, 1033, 1037, 1056, 1057, 1061, 1063, 1083],
     [1150, 1066, 1067, 1069, 1070, 1095, 1114, 1119],
     [1120, 1127, 1146, 1584, 1593, 1601, 1606, 1633],
     [1638, 1840, 1849, 1857, 1862, 1889, 1894, 2096],
     [2105, 2113, 2118, 2145, 2150, 0, 1033, 1037],
     [1056, 1057, 1061, 1063, 1083, 1150, 1066, 1067],
     [1069, 1070, 1095, 1114, 1119, 1120, 1127, 1146],
     [1584, 1593, 1601, 1606, 1633, 1638, 1840, 1849],
     [1857, 1862, 1889, 1894, 2096, 2105, 2113, 2118],
     [2145, 2150, 0, 547, 548, 550, 556, 559],
     [570, 575, 576, 603, 605, 1033, 1037, 1056],
     [1120, 1569, 1573, 1575, 1595, 1597, 1618, 1631],
     [1650, 1662, 1825, 1829, 1831, 1851, 1853, 1887],
     [1918, 2081, 2085, 2087, 2107, 2109, 2130, 2143],
     [2162, 2174, 552, 553, 1578, 1579, 1581, 1582],
     [1584, 1593, 1601, 1626, 1633, 1658, 1834, 1835],
     [1837, 1838, 1840, 1849, 1857, 1882, 1889, 1914],
     [2090, 2091, 2093, 2094, 2096, 2105, 2113, 2138],
     [2145, 2170, 0, 547, 548, 550, 556, 559],
     [570, 575, 576, 603, 605, 1033, 1037, 1056],
     [1120, 1569, 1573, 1575, 1595, 1597, 1631, 1662],
     [1825, 1829, 1831, 1851, 1853, 1887, 1918, 2081],
     [2085, 2087, 2107, 2109, 2143, 2174, 552, 553],
     [1578, 1579, 1581, 1582, 1584, 1593, 1601, 1626],
     [1633, 1658, 1834, 1835, 1837, 1838, 1840, 1849],
     [1857, 1882, 1889, 1914, 2090, 2091, 2093, 2094],
     [2096, 2105, 2113, 2138, 2145, 2170, 0, 547],
     [548, 550, 556, 559, 570, 571, 573, 575],
     [576, 605, 1033, 1037, 1056, 1058, 1569, 1573],
     [1575, 1627, 1632, 1662, 1825, 1829, 1831, 1883],
     [1918, 2081, 2085, 2087, 2139, 2144, 2174, 552],
     [553, 1578, 1579, 1581, 1582, 1584, 1593, 1601]]"

definition sup_trans_keys_44 :: "int list list" where
  "sup_trans_keys_44 =
    [[1626, 1631, 1658, 1834, 1835, 1837, 1838, 1840],
     [1849, 1857, 1882, 1887, 1914, 2090, 2091, 2093],
     [2094, 2096, 2105, 2113, 2138, 2143, 2170, 0],
     [547, 548, 550, 556, 559, 570, 573, 575],
     [576, 603, 605, 1033, 1037, 1056, 1569, 1573],
     [1575, 1595, 1632, 1662, 1825, 1829, 1831, 1851],
     [1918, 2081, 2085, 2087, 2107, 2144, 2174, 552],
     [553, 1578, 1579, 1581, 1582, 1584, 1593, 1601],
     [1626, 1631, 1658, 1834, 1835, 1837, 1838, 1840],
     [1849, 1857, 1882, 1887, 1914, 2090, 2091, 2093],
     [2094, 2096, 2105, 2113, 2138, 2143, 2170, 0],
     [575, 1033, 1037, 1056, 1569, 1573, 1575, 1595],
     [1662, 1825, 1829, 1831, 1851, 1918, 2081, 2085],
     [2087, 2107, 2174, 1578, 1579, 1581, 1582, 1584],
     [1593, 1601, 1606, 1607, 1626, 1631, 1632, 1633],
     [1638, 1639, 1658, 1834, 1835, 1837, 1838, 1840],
     [1849, 1857, 1882, 1887, 1914, 2090, 2091, 2093],
     [2094, 2096, 2105, 2113, 2118, 2119, 2138, 2143],
     [2144, 2145, 2150, 2151, 2170, 0, 575, 1033],
     [1037, 1056, 1569, 1573, 1575, 1595, 1662, 1825],
     [1829, 1831, 1851, 1918, 2081, 2085, 2087, 2107],
     [2174, 1578, 1579, 1581, 1582, 1584, 1593, 1601],
     [1606, 1607, 1626, 1631, 1632, 1633, 1638, 1639],
     [1658, 1834, 1835, 1837, 1838, 1840, 1849, 1857],
     [1882, 1887, 1914, 2090, 2091, 2093, 2094, 2096],
     [2105, 2113, 2118, 2119, 2138, 2143, 2144, 2145],
     [2150, 2151, 2170, 0, 547, 548, 550, 556],
     [559, 570, 575, 576, 603, 605, 1033, 1037],
     [1056, 1120, 1569, 1573, 1575, 1595, 1597, 1602],
     [1622, 1631, 1634, 1654, 1662, 1825, 1829, 1831],
     [1851, 1853, 1887, 1918, 2081, 2085, 2087, 2107],
     [2109, 2114, 2134, 2143, 2146, 2166, 2174, 552],
     [553, 1578, 1579, 1581, 1582, 1584, 1593, 1601],
     [1626, 1633, 1658, 1834, 1835, 1837, 1838, 1840],
     [1849, 1857, 1882, 1889, 1914, 2090, 2091, 2093],
     [2094, 2096, 2105, 2113, 2138, 2145, 2170, 0],
     [547, 548, 550, 556, 559, 570, 575, 576],
     [603, 605, 1033, 1037, 1056, 1120, 1569, 1573],
     [1575, 1595, 1597, 1631, 1662, 1825, 1829, 1831],
     [1851, 1853, 1887, 1918, 2081, 2085, 2087, 2107],
     [2109, 2143, 2174, 552, 553, 1578, 1579, 1581],
     [1582, 1584, 1593, 1601, 1626, 1633, 1658, 1834],
     [1835, 1837, 1838, 1840, 1849, 1857, 1882, 1889],
     [1914, 2090, 2091, 2093, 2094, 2096, 2105, 2113],
     [2138, 2145, 2170, 0, 547, 548, 550, 556],
     [559, 570, 575, 576, 603, 605, 1033, 1037],
     [1056, 1120, 1569, 1573, 1575, 1595, 1597, 1609],
     [1631, 1641, 1662, 1825, 1829, 1831, 1851, 1853],
     [1887, 1918, 2081, 2085, 2087, 2107, 2109, 2121],
     [2143, 2153, 2174, 552, 553, 1578, 1579, 1581],
     [1582, 1584, 1593, 1601, 1626, 1633, 1658, 1834],
     [1835, 1837, 1838, 1840, 1849, 1857, 1882, 1889],
     [1914, 2090, 2091, 2093, 2094, 2096, 2105, 2113],
     [2138, 2145, 2170, 0, 547, 548, 550, 556],
     [559, 570, 575, 576, 603, 605, 1033, 1037],
     [1056, 1120, 1569, 1573, 1575, 1595, 1597, 1604],
     [1631, 1636, 1662, 1825, 1829, 1831, 1851, 1853],
     [1887, 1918, 2081, 2085, 2087, 2107, 2109, 2116],
     [2143, 2148, 2174, 552, 553, 1578, 1579, 1581],
     [1582, 1584, 1593, 1601, 1626, 1633, 1658, 1834],
     [1835, 1837, 1838, 1840, 1849, 1857, 1882, 1889],
     [1914, 2090, 2091, 2093, 2094, 2096, 2105, 2113],
     [2138, 2145, 2170, 0, 547, 548, 550, 556],
     [559, 570, 575, 576, 603, 605, 1033, 1037],
     [1056, 1120, 1569, 1573, 1575, 1595, 1597, 1631],
     [1662, 1825, 1829, 1831, 1851, 1853, 1887, 1918],
     [2081, 2085, 2087, 2107, 2109, 2143, 2174, 552],
     [553, 1578, 1579, 1581, 1582, 1584, 1593, 1601],
     [1626, 1633, 1658, 1834, 1835, 1837, 1838, 1840],
     [1849, 1857, 1882, 1889, 1914, 2090, 2091, 2093],
     [2094, 2096, 2105, 2113, 2138, 2145, 2170, 0],
     [547, 548, 550, 556, 559, 570, 571, 573],
     [575, 576, 605, 1033, 1037, 1056, 1058, 1569],
     [1573, 1575, 1627, 1632, 1662, 1825, 1829, 1831],
     [1883, 1918, 2081, 2085, 2087, 2139, 2144, 2174],
     [552, 553, 1578, 1579, 1581, 1582, 1584, 1593],
     [1601, 1626, 1631, 1658, 1834, 1835, 1837, 1838],
     [1840, 1849, 1857, 1882, 1887, 1914, 2090, 2091],
     [2093, 2094, 2096, 2105, 2113, 2138, 2143, 2170],
     [0, 547, 548, 550, 556, 559, 570, 573],
     [575, 576, 603, 605, 1033, 1037, 1056, 1569],
     [1573, 1575, 1595, 1632, 1662, 1825, 1829, 1831],
     [1851, 1918, 2081, 2085, 2087, 2107, 2144, 2174],
     [552, 553, 1578, 1579, 1581, 1582, 1584, 1593],
     [1601, 1626, 1631, 1658, 1834, 1835, 1837, 1838],
     [1840, 1849, 1857, 1882, 1887, 1914, 2090, 2091],
     [2093, 2094, 2096, 2105, 2113, 2138, 2143, 2170],
     [0, 575, 1033, 1037, 1056, 1569, 1573, 1575],
     [1595, 1662, 1825, 1829, 1831, 1851, 1918, 2081],
     [2085, 2087, 2107, 2174, 1578, 1579, 1581, 1582],
     [1584, 1593, 1601, 1606, 1607, 1626, 1631, 1632],
     [1633, 1638, 1639, 1658, 1834, 1835, 1837, 1838],
     [1840, 1849, 1857, 1882, 1887, 1914, 2090, 2091],
     [2093, 2094, 2096, 2105, 2113, 2118, 2119, 2138],
     [2143, 2144, 2145, 2150, 2151, 2170, 0, 575],
     [1033, 1037, 1056, 1569, 1573, 1575, 1595, 1662],
     [1825, 1829, 1831, 1851, 1918, 2081, 2085, 2087],
     [2107, 2174, 1578, 1579, 1581, 1582, 1584, 1593],
     [1601, 1606, 1607, 1626, 1631, 1632, 1633, 1638],
     [1639, 1658, 1834, 1835, 1837, 1838, 1840, 1849],
     [1857, 1882, 1887, 1914, 2090, 2091, 2093, 2094],
     [2096, 2105, 2113, 2118, 2119, 2138, 2143, 2144],
     [2145, 2150, 2151, 2170, 0, 547, 548, 550],
     [556, 559, 570, 575, 576, 603, 605, 1033],
     [1037, 1056, 1120, 1569, 1573, 1575, 1595, 1597],
     [1618, 1631, 1650, 1662, 1825, 1829, 1831, 1851],
     [1853, 1887, 1918, 2081, 2085, 2087, 2107, 2109],
     [2130, 2143, 2162, 2174, 552, 553, 1578, 1579],
     [1581, 1582, 1584, 1593, 1601, 1626, 1633, 1658],
     [1834, 1835, 1837, 1838, 1840, 1849, 1857, 1882],
     [1889, 1914, 2090, 2091, 2093, 2094, 2096, 2105],
     [2113, 2138, 2145, 2170, 0, 547, 548, 550],
     [556, 559, 570, 575, 576, 603, 605, 1033],
     [1037, 1056, 1120, 1569, 1573, 1575, 1595, 1597],
     [1601, 1631, 1633, 1662, 1825, 1829, 1831, 1851],
     [1853, 1887, 1918, 2081, 2085, 2087, 2107, 2109],
     [2113, 2143, 2145, 2174, 552, 553, 1578, 1579],
     [1581, 1582, 1584, 1593, 1602, 1626, 1634, 1658],
     [1834, 1835, 1837, 1838, 1840, 1849, 1857, 1882],
     [1889, 1914, 2090, 2091, 2093, 2094, 2096, 2105],
     [2114, 2138, 2146, 2170, 0, 547, 548, 550],
     [556, 559, 570, 575, 576, 603, 605, 1033],
     [1037, 1056, 1120, 1569, 1573, 1575, 1595, 1597],
     [1614, 1631, 1646, 1662, 1825, 1829, 1831, 1851],
     [1853, 1887, 1918, 2081, 2085, 2087, 2107, 2109],
     [2126, 2143, 2158, 2174, 552, 553, 1578, 1579],
     [1581, 1582, 1584, 1593, 1601, 1626, 1633, 1658],
     [1834, 1835, 1837, 1838, 1840, 1849, 1857, 1882],
     [1889, 1914, 2090, 2091, 2093, 2094, 2096, 2105],
     [2113, 2138, 2145, 2170, 0, 547, 548, 550],
     [556, 559, 570, 575, 576, 603, 605, 1033],
     [1037, 1056, 1120, 1569, 1573, 1575, 1595, 1597],
     [1619, 1631, 1651, 1662, 1825, 1829, 1831, 1851],
     [1853, 1887, 1918, 2081, 2085, 2087, 2107, 2109],
     [2131, 2143, 2163, 2174, 552, 553, 1578, 1579],
     [1581, 1582, 1584, 1593, 1601, 1626, 1633, 1658],
     [1834, 1835, 1837, 1838, 1840, 1849, 1857, 1882],
     [1889, 1914, 2090, 2091, 2093, 2094, 2096, 2105],
     [2113, 2138, 2145, 2170, 0, 547, 548, 550],
     [556, 559, 570, 575, 576, 603, 605, 1033],
     [1037, 1056, 1120, 1569, 1573, 1575, 1595, 1597],
     [1616, 1631, 1648, 1662, 1825, 1829, 1831, 1851],
     [1853, 1887, 1918, 2081, 2085, 2087, 2107, 2109],
     [2128, 2143, 2160, 2174, 552, 553, 1578, 1579],
     [1581, 1582, 1584, 1593, 1601, 1626, 1633, 1658],
     [1834, 1835, 1837, 1838, 1840, 1849, 1857, 1882],
     [1889, 1914, 2090, 2091, 2093, 2094, 2096, 2105],
     [2113, 2138, 2145, 2170, 0, 547, 548, 550],
     [556, 559, 570, 575, 576, 603, 605, 1033],
     [1037, 1056, 1120, 1569, 1573, 1575, 1595, 1597]]"

definition sup_trans_keys_45 :: "int list list" where
  "sup_trans_keys_45 =
    [[1615, 1631, 1647, 1662, 1825, 1829, 1831, 1851],
     [1853, 1887, 1918, 2081, 2085, 2087, 2107, 2109],
     [2127, 2143, 2159, 2174, 552, 553, 1578, 1579],
     [1581, 1582, 1584, 1593, 1601, 1626, 1633, 1658],
     [1834, 1835, 1837, 1838, 1840, 1849, 1857, 1882],
     [1889, 1914, 2090, 2091, 2093, 2094, 2096, 2105],
     [2113, 2138, 2145, 2170, 0, 547, 548, 550],
     [556, 559, 570, 575, 576, 603, 605, 1033],
     [1037, 1056, 1120, 1569, 1573, 1575, 1595, 1597],
     [1618, 1631, 1650, 1662, 1825, 1829, 1831, 1851],
     [1853, 1887, 1918, 2081, 2085, 2087, 2107, 2109],
     [2130, 2143, 2162, 2174, 552, 553, 1578, 1579],
     [1581, 1582, 1584, 1593, 1601, 1626, 1633, 1658],
     [1834, 1835, 1837, 1838, 1840, 1849, 1857, 1882],
     [1889, 1914, 2090, 2091, 2093, 2094, 2096, 2105],
     [2113, 2138, 2145, 2170, 0, 547, 548, 550],
     [556, 559, 570, 575, 576, 603, 605, 1033],
     [1037, 1056, 1120, 1569, 1573, 1575, 1595, 1597],
     [1620, 1631, 1652, 1662, 1825, 1829, 1831, 1851],
     [1853, 1887, 1918, 2081, 2085, 2087, 2107, 2109],
     [2132, 2143, 2164, 2174, 552, 553, 1578, 1579],
     [1581, 1582, 1584, 1593, 1601, 1626, 1633, 1658],
     [1834, 1835, 1837, 1838, 1840, 1849, 1857, 1882],
     [1889, 1914, 2090, 2091, 2093, 2094, 2096, 2105],
     [2113, 2138, 2145, 2170, 0, 547, 548, 550],
     [556, 559, 570, 575, 576, 603, 605, 1033],
     [1037, 1056, 1120, 1569, 1573, 1575, 1595, 1597],
     [1631, 1662, 1825, 1829, 1831, 1851, 1853, 1887],
     [1918, 2081, 2085, 2087, 2107, 2109, 2143, 2174],
     [552, 553, 1578, 1579, 1581, 1582, 1584, 1593],
     [1601, 1626, 1633, 1658, 1834, 1835, 1837, 1838],
     [1840, 1849, 1857, 1882, 1889, 1914, 2090, 2091],
     [2093, 2094, 2096, 2105, 2113, 2138, 2145, 2170],
     [0, 547, 548, 550, 556, 559, 570, 571],
     [573, 575, 576, 605, 1033, 1037, 1056, 1058],
     [1569, 1573, 1575, 1619, 1620, 1621, 1623, 1627],
     [1632, 1651, 1652, 1653, 1655, 1662, 1825, 1829],
     [1831, 1883, 1918, 2081, 2085, 2087, 2131, 2132],
     [2133, 2135, 2139, 2144, 2163, 2164, 2165, 2167],
     [2174, 552, 553, 1578, 1579, 1581, 1582, 1584],
     [1593, 1601, 1626, 1631, 1658, 1834, 1835, 1837],
     [1838, 1840, 1849, 1857, 1882, 1887, 1914, 2090],
     [2091, 2093, 2094, 2096, 2105, 2113, 2138, 2143],
     [2170, 0, 547, 548, 550, 556, 559, 570],
     [573, 575, 576, 603, 605, 1033, 1037, 1056],
     [1569, 1573, 1575, 1595, 1632, 1662, 1825, 1829],
     [1831, 1851, 1918, 2081, 2085, 2087, 2107, 2144],
     [2174, 552, 553, 1578, 1579, 1581, 1582, 1584],
     [1593, 1601, 1626, 1631, 1658, 1834, 1835, 1837],
     [1838, 1840, 1849, 1857, 1882, 1887, 1914, 2090],
     [2091, 2093, 2094, 2096, 2105, 2113, 2138, 2143],
     [2170, 0, 575, 1033, 1037, 1056, 1569, 1573],
     [1575, 1595, 1662, 1825, 1829, 1831, 1851, 1918],
     [2081, 2085, 2087, 2107, 2174, 1578, 1579, 1581],
     [1582, 1584, 1593, 1601, 1606, 1607, 1626, 1631],
     [1632, 1633, 1638, 1639, 1658, 1834, 1835, 1837],
     [1838, 1840, 1849, 1857, 1882, 1887, 1914, 2090],
     [2091, 2093, 2094, 2096, 2105, 2113, 2118, 2119],
     [2138, 2143, 2144, 2145, 2150, 2151, 2170, 0],
     [575, 1033, 1037, 1056, 1569, 1573, 1575, 1595],
     [1662, 1825, 1829, 1831, 1851, 1918, 2081, 2085],
     [2087, 2107, 2174, 1578, 1579, 1581, 1582, 1584],
     [1593, 1601, 1606, 1607, 1626, 1631, 1632, 1633],
     [1638, 1639, 1658, 1834, 1835, 1837, 1838, 1840],
     [1849, 1857, 1882, 1887, 1914, 2090, 2091, 2093],
     [2094, 2096, 2105, 2113, 2118, 2119, 2138, 2143],
     [2144, 2145, 2150, 2151, 2170, 0, 547, 548],
     [550, 556, 559, 570, 573, 575, 576, 603],
     [605, 1033, 1037, 1056, 1569, 1573, 1575, 1595],
     [1603, 1632, 1635, 1662, 1825, 1829, 1831, 1851],
     [1918, 2081, 2085, 2087, 2107, 2115, 2144, 2147],
     [2174, 552, 553, 1578, 1579, 1581, 1582, 1584],
     [1593, 1601, 1626, 1631, 1658, 1834, 1835, 1837],
     [1838, 1840, 1849, 1857, 1882, 1887, 1914, 2090],
     [2091, 2093, 2094, 2096, 2105, 2113, 2138, 2143],
     [2170, 0, 547, 548, 550, 556, 559, 570],
     [573, 575, 576, 603, 605, 1033, 1037, 1056],
     [1569, 1573, 1575, 1595, 1620, 1632, 1652, 1662],
     [1825, 1829, 1831, 1851, 1918, 2081, 2085, 2087],
     [2107, 2132, 2144, 2164, 2174, 552, 553, 1578],
     [1579, 1581, 1582, 1584, 1593, 1601, 1626, 1631],
     [1658, 1834, 1835, 1837, 1838, 1840, 1849, 1857],
     [1882, 1887, 1914, 2090, 2091, 2093, 2094, 2096],
     [2105, 2113, 2138, 2143, 2170, 0, 547, 548],
     [550, 556, 559, 570, 573, 575, 576, 603],
     [605, 1033, 1037, 1056, 1569, 1573, 1575, 1595],
     [1616, 1632, 1648, 1662, 1825, 1829, 1831, 1851],
     [1918, 2081, 2085, 2087, 2107, 2128, 2144, 2160],
     [2174, 552, 553, 1578, 1579, 1581, 1582, 1584],
     [1593, 1601, 1626, 1631, 1658, 1834, 1835, 1837],
     [1838, 1840, 1849, 1857, 1882, 1887, 1914, 2090],
     [2091, 2093, 2094, 2096, 2105, 2113, 2138, 2143],
     [2170, 0, 547, 548, 550, 556, 559, 570],
     [573, 575, 576, 603, 605, 1033, 1037, 1056],
     [1569, 1573, 1575, 1595, 1632, 1662, 1825, 1829],
     [1831, 1851, 1918, 2081, 2085, 2087, 2107, 2144],
     [2174, 552, 553, 1578, 1579, 1581, 1582, 1584],
     [1593, 1601, 1626, 1631, 1658, 1834, 1835, 1837],
     [1838, 1840, 1849, 1857, 1882, 1887, 1914, 2090],
     [2091, 2093, 2094, 2096, 2105, 2113, 2138, 2143],
     [2170, 0, 547, 548, 550, 556, 559, 570],
     [573, 575, 576, 603, 605, 1033, 1037, 1056],
     [1569, 1573, 1575, 1595, 1603, 1612, 1632, 1635],
     [1644, 1662, 1825, 1829, 1831, 1851, 1918, 2081],
     [2085, 2087, 2107, 2115, 2124, 2144, 2147, 2156],
     [2174, 552, 553, 1578, 1579, 1581, 1582, 1584],
     [1593, 1601, 1626, 1631, 1658, 1834, 1835, 1837],
     [1838, 1840, 1849, 1857, 1882, 1887, 1914, 2090],
     [2091, 2093, 2094, 2096, 2105, 2113, 2138, 2143],
     [2170, 0, 547, 548, 550, 556, 559, 570],
     [573, 575, 576, 603, 605, 1033, 1037, 1056],
     [1569, 1573, 1575, 1595, 1616, 1632, 1648, 1662],
     [1825, 1829, 1831, 1851, 1918, 2081, 2085, 2087],
     [2107, 2128, 2144, 2160, 2174, 552, 553, 1578],
     [1579, 1581, 1582, 1584, 1593, 1601, 1626, 1631],
     [1658, 1834, 1835, 1837, 1838, 1840, 1849, 1857],
     [1882, 1887, 1914, 2090, 2091, 2093, 2094, 2096],
     [2105, 2113, 2138, 2143, 2170, 0, 547, 548],
     [550, 556, 559, 570, 573, 575, 576, 603],
     [605, 1033, 1037, 1056, 1569, 1573, 1575, 1595],
     [1632, 1662, 1825, 1829, 1831, 1851, 1918, 2081],
     [2085, 2087, 2107, 2144, 2174, 552, 553, 1578],
     [1579, 1581, 1582, 1584, 1593, 1601, 1626, 1631],
     [1658, 1834, 1835, 1837, 1838, 1840, 1849, 1857],
     [1882, 1887, 1914, 2090, 2091, 2093, 2094, 2096],
     [2105, 2113, 2138, 2143, 2170, 0, 547, 548],
     [550, 556, 559, 570, 573, 575, 576, 603],
     [605, 1033, 1037, 1056, 1569, 1573, 1575, 1595],
     [1619, 1632, 1651, 1662, 1825, 1829, 1831, 1851],
     [1918, 2081, 2085, 2087, 2107, 2131, 2144, 2163],
     [2174, 552, 553, 1578, 1579, 1581, 1582, 1584],
     [1593, 1601, 1626, 1631, 1658, 1834, 1835, 1837],
     [1838, 1840, 1849, 1857, 1882, 1887, 1914, 2090],
     [2091, 2093, 2094, 2096, 2105, 2113, 2138, 2143],
     [2170, 0, 547, 548, 550, 556, 559, 570],
     [573, 575, 576, 603, 605, 1033, 1037, 1056],
     [1569, 1573, 1575, 1595, 1632, 1662, 1825, 1829],
     [1831, 1851, 1918, 2081, 2085, 2087, 2107, 2144],
     [2174, 552, 553, 1578, 1579, 1581, 1582, 1584],
     [1593, 1601, 1626, 1631, 1658, 1834, 1835, 1837],
     [1838, 1840, 1849, 1857, 1882, 1887, 1914, 2090],
     [2091, 2093, 2094, 2096, 2105, 2113, 2138, 2143],
     [2170, 0, 547, 548, 550, 556, 559, 570],
     [573, 575, 576, 603, 605, 1033, 1037, 1056],
     [1569, 1573, 1575, 1595, 1604, 1632, 1636, 1662],
     [1825, 1829, 1831, 1851, 1918, 2081, 2085, 2087],
     [2107, 2116, 2144, 2148, 2174, 552, 553, 1578],
     [1579, 1581, 1582, 1584, 1593, 1601, 1626, 1631],
     [1658, 1834, 1835, 1837, 1838, 1840, 1849, 1857],
     [1882, 1887, 1914, 2090, 2091, 2093, 2094, 2096]]"

definition sup_trans_keys_46 :: "int list list" where
  "sup_trans_keys_46 =
    [[2105, 2113, 2138, 2143, 2170, 0, 547, 548],
     [550, 556, 559, 570, 573, 575, 576, 603],
     [605, 1033, 1037, 1056, 1569, 1573, 1575, 1595],
     [1616, 1632, 1648, 1662, 1825, 1829, 1831, 1851],
     [1918, 2081, 2085, 2087, 2107, 2128, 2144, 2160],
     [2174, 552, 553, 1578, 1579, 1581, 1582, 1584],
     [1593, 1601, 1626, 1631, 1658, 1834, 1835, 1837],
     [1838, 1840, 1849, 1857, 1882, 1887, 1914, 2090],
     [2091, 2093, 2094, 2096, 2105, 2113, 2138, 2143],
     [2170, 0, 547, 548, 550, 556, 559, 570],
     [573, 575, 576, 603, 605, 1033, 1037, 1056],
     [1569, 1573, 1575, 1595, 1632, 1662, 1825, 1829],
     [1831, 1851, 1918, 2081, 2085, 2087, 2107, 2144],
     [2174, 552, 553, 1578, 1579, 1581, 1582, 1584],
     [1593, 1601, 1626, 1631, 1658, 1834, 1835, 1837],
     [1838, 1840, 1849, 1857, 1882, 1887, 1914, 2090],
     [2091, 2093, 2094, 2096, 2105, 2113, 2138, 2143],
     [2170, 0, 547, 548, 550, 556, 559, 570],
     [573, 575, 576, 603, 605, 1033, 1037, 1056],
     [1569, 1573, 1575, 1595, 1619, 1632, 1651, 1662],
     [1825, 1829, 1831, 1851, 1918, 2081, 2085, 2087],
     [2107, 2131, 2144, 2163, 2174, 552, 553, 1578],
     [1579, 1581, 1582, 1584, 1593, 1601, 1626, 1631],
     [1658, 1834, 1835, 1837, 1838, 1840, 1849, 1857],
     [1882, 1887, 1914, 2090, 2091, 2093, 2094, 2096],
     [2105, 2113, 2138, 2143, 2170, 0, 547, 548],
     [550, 556, 559, 570, 573, 575, 576, 603],
     [605, 1033, 1037, 1056, 1569, 1573, 1575, 1595],
     [1619, 1632, 1651, 1662, 1825, 1829, 1831, 1851],
     [1918, 2081, 2085, 2087, 2107, 2131, 2144, 2163],
     [2174, 552, 553, 1578, 1579, 1581, 1582, 1584],
     [1593, 1601, 1626, 1631, 1658, 1834, 1835, 1837],
     [1838, 1840, 1849, 1857, 1882, 1887, 1914, 2090],
     [2091, 2093, 2094, 2096, 2105, 2113, 2138, 2143],
     [2170, 0, 547, 548, 550, 556, 559, 570],
     [573, 575, 576, 603, 605, 1033, 1037, 1056],
     [1569, 1573, 1575, 1595, 1632, 1662, 1825, 1829],
     [1831, 1851, 1918, 2081, 2085, 2087, 2107, 2144],
     [2174, 552, 553, 1578, 1579, 1581, 1582, 1584],
     [1593, 1601, 1626, 1631, 1658, 1834, 1835, 1837],
     [1838, 1840, 1849, 1857, 1882, 1887, 1914, 2090],
     [2091, 2093, 2094, 2096, 2105, 2113, 2138, 2143],
     [2170, 556, 571, 575, 1569, 1573, 1584, 1585],
     [1586, 1594, 1597, 1600, 1631, 1662, 1825, 1829],
     [1840, 1841, 1842, 1850, 1853, 1856, 1887, 1918],
     [2081, 2085, 2096, 2097, 2098, 2106, 2109, 2112],
     [2143, 2174, 1571, 1579, 1581, 1583, 1587, 1593],
     [1601, 1626, 1633, 1658, 1827, 1835, 1837, 1839],
     [1843, 1849, 1857, 1882, 1889, 1914, 2083, 2091],
     [2093, 2095, 2099, 2105, 2113, 2138, 2145, 2170],
     [556, 571, 575, 1569, 1573, 1581, 1582, 1583],
     [1594, 1597, 1600, 1631, 1662, 1825, 1829, 1837],
     [1838, 1839, 1850, 1853, 1856, 1887, 1918, 2081],
     [2085, 2093, 2094, 2095, 2106, 2109, 2112, 2143],
     [2174, 1571, 1579, 1584, 1593, 1601, 1626, 1633],
     [1658, 1827, 1835, 1840, 1849, 1857, 1882, 1889],
     [1914, 2083, 2091, 2096, 2105, 2113, 2138, 2145],
     [2170, 556, 571, 575, 1569, 1573, 1584, 1585],
     [1586, 1594, 1597, 1600, 1631, 1662, 1825, 1829],
     [1840, 1841, 1842, 1850, 1853, 1856, 1887, 1918],
     [2081, 2085, 2096, 2097, 2098, 2106, 2109, 2112],
     [2143, 2174, 1571, 1579, 1581, 1583, 1587, 1593],
     [1601, 1626, 1633, 1658, 1827, 1835, 1837, 1839],
     [1843, 1849, 1857, 1882, 1889, 1914, 2083, 2091],
     [2093, 2095, 2099, 2105, 2113, 2138, 2145, 2170],
     [556, 571, 575, 1569, 1573, 1581, 1582, 1583],
     [1594, 1597, 1600, 1631, 1662, 1825, 1829, 1837],
     [1838, 1839, 1850, 1853, 1856, 1887, 1918, 2081],
     [2085, 2093, 2094, 2095, 2106, 2109, 2112, 2143],
     [2174, 1571, 1579, 1584, 1593, 1601, 1626, 1633],
     [1658, 1827, 1835, 1840, 1849, 1857, 1882, 1889],
     [1914, 2083, 2091, 2096, 2105, 2113, 2138, 2145],
     [2170, 556, 571, 575, 1569, 1573, 1584, 1585],
     [1586, 1594, 1597, 1600, 1631, 1662, 1825, 1829],
     [1840, 1841, 1842, 1850, 1853, 1856, 1887, 1918],
     [2081, 2085, 2096, 2097, 2098, 2106, 2109, 2112],
     [2143, 2174, 1571, 1579, 1581, 1583, 1587, 1593],
     [1601, 1626, 1633, 1658, 1827, 1835, 1837, 1839],
     [1843, 1849, 1857, 1882, 1889, 1914, 2083, 2091],
     [2093, 2095, 2099, 2105, 2113, 2138, 2145, 2170],
     [0, 556, 575, 1033, 1037, 1056, 1569, 1573],
     [1581, 1582, 1583, 1594, 1595, 1597, 1600, 1631],
     [1662, 1825, 1829, 1837, 1838, 1839, 1850, 1851],
     [1853, 1856, 1887, 1918, 2081, 2085, 2093, 2094],
     [2095, 2106, 2107, 2109, 2112, 2143, 2174, 1571],
     [1579, 1584, 1593, 1601, 1626, 1633, 1658, 1827],
     [1835, 1840, 1849, 1857, 1882, 1889, 1914, 2083],
     [2091, 2096, 2105, 2113, 2138, 2145, 2170, 0],
     [556, 575, 1033, 1037, 1056, 1569, 1573, 1581],
     [1582, 1583, 1594, 1595, 1597, 1600, 1631, 1662],
     [1825, 1829, 1837, 1838, 1839, 1850, 1851, 1853],
     [1856, 1887, 1918, 2081, 2085, 2093, 2094, 2095],
     [2106, 2107, 2109, 2112, 2143, 2174, 1571, 1579],
     [1584, 1593, 1601, 1626, 1633, 1658, 1827, 1835],
     [1840, 1849, 1857, 1882, 1889, 1914, 2083, 2091],
     [2096, 2105, 2113, 2138, 2145, 2170, 0, 556],
     [575, 1033, 1037, 1056, 1569, 1573, 1581, 1582],
     [1583, 1594, 1595, 1597, 1600, 1631, 1662, 1825],
     [1829, 1837, 1838, 1839, 1850, 1851, 1853, 1856],
     [1887, 1918, 2081, 2085, 2093, 2094, 2095, 2106],
     [2107, 2109, 2112, 2143, 2174, 1571, 1579, 1584],
     [1593, 1601, 1626, 1633, 1658, 1827, 1835, 1840],
     [1849, 1857, 1882, 1889, 1914, 2083, 2091, 2096],
     [2105, 2113, 2138, 2145, 2170, 0, 556, 575],
     [1033, 1037, 1056, 1569, 1573, 1581, 1582, 1583],
     [1589, 1594, 1595, 1597, 1600, 1631, 1662, 1825],
     [1829, 1837, 1838, 1839, 1845, 1850, 1851, 1853],
     [1856, 1887, 1918, 2081, 2085, 2093, 2094, 2095],
     [2101, 2106, 2107, 2109, 2112, 2143, 2174, 1571],
     [1579, 1584, 1588, 1590, 1593, 1601, 1626, 1633],
     [1658, 1827, 1835, 1840, 1844, 1846, 1849, 1857],
     [1882, 1889, 1914, 2083, 2091, 2096, 2100, 2102],
     [2105, 2113, 2138, 2145, 2170, 0, 556, 575],
     [1033, 1037, 1056, 1569, 1573, 1581, 1582, 1583],
     [1594, 1595, 1597, 1600, 1631, 1662, 1825, 1829],
     [1837, 1838, 1839, 1850, 1851, 1853, 1856, 1887],
     [1918, 2081, 2085, 2093, 2094, 2095, 2106, 2107],
     [2109, 2112, 2143, 2174, 1571, 1579, 1584, 1589],
     [1590, 1593, 1601, 1626, 1633, 1658, 1827, 1835],
     [1840, 1845, 1846, 1849, 1857, 1882, 1889, 1914],
     [2083, 2091, 2096, 2101, 2102, 2105, 2113, 2138],
     [2145, 2170, 556, 571, 575, 1569, 1573, 1581],
     [1582, 1583, 1594, 1597, 1600, 1631, 1662, 1825],
     [1829, 1837, 1838, 1839, 1850, 1853, 1856, 1887],
     [1918, 2081, 2085, 2093, 2094, 2095, 2106, 2109],
     [2112, 2143, 2174, 1571, 1579, 1584, 1593, 1601],
     [1626, 1633, 1658, 1827, 1835, 1840, 1849, 1857],
     [1882, 1889, 1914, 2083, 2091, 2096, 2105, 2113],
     [2138, 2145, 2170, 556, 571, 575, 1569, 1573],
     [1581, 1582, 1583, 1594, 1597, 1600, 1631, 1662],
     [1825, 1829, 1837, 1838, 1839, 1850, 1853, 1856],
     [1887, 1918, 2081, 2085, 2093, 2094, 2095, 2106],
     [2109, 2112, 2143, 2174, 1571, 1579, 1584, 1593],
     [1601, 1626, 1633, 1658, 1827, 1835, 1840, 1849],
     [1857, 1882, 1889, 1914, 2083, 2091, 2096, 2105],
     [2113, 2138, 2145, 2170, 556, 571, 575, 1569],
     [1573, 1581, 1582, 1583, 1589, 1594, 1597, 1600],
     [1631, 1662, 1825, 1829, 1837, 1838, 1839, 1845],
     [1850, 1853, 1856, 1887, 1918, 2081, 2085, 2093],
     [2094, 2095, 2101, 2106, 2109, 2112, 2143, 2174],
     [1571, 1579, 1584, 1588, 1590, 1593, 1601, 1626],
     [1633, 1658, 1827, 1835, 1840, 1844, 1846, 1849],
     [1857, 1882, 1889, 1914, 2083, 2091, 2096, 2100],
     [2102, 2105, 2113, 2138, 2145, 2170, 556, 571],
     [575, 1569, 1573, 1581, 1582, 1583, 1594, 1597],
     [1600, 1631, 1662, 1825, 1829, 1837, 1838, 1839],
     [1850, 1853, 1856, 1887, 1918, 2081, 2085, 2093],
     [2094, 2095, 2106, 2109, 2112, 2143, 2174, 1571],
     [1579, 1584, 1589, 1590, 1593, 1601, 1626, 1633],
     [1658, 1827, 1835, 1840, 1845, 1846, 1849, 1857]]"

definition sup_trans_keys_47 :: "int list list" where
  "sup_trans_keys_47 =
    [[1882, 1889, 1914, 2083, 2091, 2096, 2101, 2102],
     [2105, 2113, 2138, 2145, 2170, 556, 571, 575],
     [1569, 1573, 1581, 1582, 1583, 1594, 1597, 1600],
     [1631, 1662, 1825, 1829, 1837, 1838, 1839, 1850],
     [1853, 1856, 1887, 1918, 2081, 2085, 2093, 2094],
     [2095, 2106, 2109, 2112, 2143, 2174, 1571, 1579],
     [1584, 1593, 1601, 1626, 1633, 1658, 1827, 1835],
     [1840, 1849, 1857, 1882, 1889, 1914, 2083, 2091],
     [2096, 2105, 2113, 2138, 2145, 2170, 556, 571],
     [575, 1569, 1573, 1581, 1582, 1583, 1594, 1597],
     [1600, 1631, 1662, 1825, 1829, 1837, 1838, 1839],
     [1850, 1853, 1856, 1887, 1918, 2081, 2085, 2093],
     [2094, 2095, 2106, 2109, 2112, 2143, 2174, 1571],
     [1579, 1584, 1593, 1601, 1626, 1633, 1658, 1827],
     [1835, 1840, 1849, 1857, 1882, 1889, 1914, 2083],
     [2091, 2096, 2105, 2113, 2138, 2145, 2170, 556],
     [571, 575, 1569, 1573, 1581, 1582, 1583, 1589],
     [1594, 1597, 1600, 1631, 1662, 1825, 1829, 1837],
     [1838, 1839, 1845, 1850, 1853, 1856, 1887, 1918],
     [2081, 2085, 2093, 2094, 2095, 2101, 2106, 2109],
     [2112, 2143, 2174, 1571, 1579, 1584, 1588, 1590],
     [1593, 1601, 1626, 1633, 1658, 1827, 1835, 1840],
     [1844, 1846, 1849, 1857, 1882, 1889, 1914, 2083],
     [2091, 2096, 2100, 2102, 2105, 2113, 2138, 2145],
     [2170, 556, 571, 575, 1569, 1573, 1581, 1582],
     [1583, 1594, 1597, 1600, 1631, 1662, 1825, 1829],
     [1837, 1838, 1839, 1850, 1853, 1856, 1887, 1918],
     [2081, 2085, 2093, 2094, 2095, 2106, 2109, 2112],
     [2143, 2174, 1571, 1579, 1584, 1589, 1590, 1593],
     [1601, 1626, 1633, 1658, 1827, 1835, 1840, 1845],
     [1846, 1849, 1857, 1882, 1889, 1914, 2083, 2091],
     [2096, 2101, 2102, 2105, 2113, 2138, 2145, 2170],
     [556, 571, 575, 1569, 1573, 1581, 1582, 1583],
     [1594, 1597, 1600, 1631, 1662, 1825, 1829, 1837],
     [1838, 1839, 1850, 1853, 1856, 1887, 1918, 2081],
     [2085, 2093, 2094, 2095, 2106, 2109, 2112, 2143],
     [2174, 1571, 1579, 1584, 1593, 1601, 1626, 1633],
     [1658, 1827, 1835, 1840, 1849, 1857, 1882, 1889],
     [1914, 2083, 2091, 2096, 2105, 2113, 2138, 2145],
     [2170, 556, 571, 575, 1569, 1573, 1581, 1582],
     [1583, 1594, 1597, 1600, 1631, 1662, 1825, 1829],
     [1837, 1838, 1839, 1850, 1853, 1856, 1887, 1918],
     [2081, 2085, 2093, 2094, 2095, 2106, 2109, 2112],
     [2143, 2174, 1571, 1579, 1584, 1593, 1601, 1626],
     [1633, 1658, 1827, 1835, 1840, 1849, 1857, 1882],
     [1889, 1914, 2083, 2091, 2096, 2105, 2113, 2138],
     [2145, 2170, 556, 571, 575, 1569, 1573, 1581],
     [1582, 1583, 1589, 1594, 1597, 1600, 1631, 1662],
     [1825, 1829, 1837, 1838, 1839, 1845, 1850, 1853],
     [1856, 1887, 1918, 2081, 2085, 2093, 2094, 2095],
     [2101, 2106, 2109, 2112, 2143, 2174, 1571, 1579],
     [1584, 1588, 1590, 1593, 1601, 1626, 1633, 1658],
     [1827, 1835, 1840, 1844, 1846, 1849, 1857, 1882],
     [1889, 1914, 2083, 2091, 2096, 2100, 2102, 2105],
     [2113, 2138, 2145, 2170, 556, 571, 575, 1569],
     [1573, 1581, 1582, 1583, 1594, 1597, 1600, 1631],
     [1662, 1825, 1829, 1837, 1838, 1839, 1850, 1853],
     [1856, 1887, 1918, 2081, 2085, 2093, 2094, 2095],
     [2106, 2109, 2112, 2143, 2174, 1571, 1579, 1584],
     [1589, 1590, 1593, 1601, 1626, 1633, 1658, 1827],
     [1835, 1840, 1845, 1846, 1849, 1857, 1882, 1889],
     [1914, 2083, 2091, 2096, 2101, 2102, 2105, 2113],
     [2138, 2145, 2170, 1033, 1037, 1056, 1057, 1061],
     [1063, 1066, 1084, 1150, 1579, 1594, 1835, 1850],
     [2091, 2106, 1119, 1120, 1581, 1582, 1584, 1593],
     [1601, 1626, 1633, 1658, 1837, 1838, 1840, 1849],
     [1857, 1882, 1889, 1914, 2093, 2094, 2096, 2105],
     [2113, 2138, 2145, 2170, 1033, 1037, 1056, 1057],
     [1061, 1063, 1066, 1084, 1150, 1579, 1594, 1605],
     [1637, 1835, 1850, 1861, 1893, 2091, 2106, 2117],
     [2149, 1119, 1120, 1581, 1582, 1584, 1593, 1601],
     [1626, 1633, 1658, 1837, 1838, 1840, 1849, 1857],
     [1882, 1889, 1914, 2093, 2094, 2096, 2105, 2113],
     [2138, 2145, 2170, 1033, 1037, 1056, 1057, 1061],
     [1063, 1066, 1084, 1150, 1579, 1594, 1612, 1644],
     [1835, 1850, 1868, 1900, 2091, 2106, 2124, 2156],
     [1119, 1120, 1581, 1582, 1584, 1593, 1601, 1626],
     [1633, 1658, 1837, 1838, 1840, 1849, 1857, 1882],
     [1889, 1914, 2093, 2094, 2096, 2105, 2113, 2138],
     [2145, 2170, 1033, 1037, 1056, 1057, 1061, 1063],
     [1066, 1084, 1150, 1579, 1594, 1835, 1850, 2091],
     [2106, 1119, 1120, 1581, 1582, 1584, 1593, 1601],
     [1626, 1633, 1658, 1837, 1838, 1840, 1849, 1857],
     [1882, 1889, 1914, 2093, 2094, 2096, 2105, 2113],
     [2138, 2145, 2170, 1571, 1578, 1579, 1827, 1834],
     [1835, 2083, 2090, 2091, 1576, 1577, 1581, 1582],
     [1584, 1593, 1601, 1606, 1633, 1638, 1832, 1833],
     [1837, 1838, 1840, 1849, 1857, 1862, 1889, 1894],
     [2088, 2089, 2093, 2094, 2096, 2105, 2113, 2118],
     [2145, 2150, 0, 1033, 1037, 1056, 1571, 1595],
     [1827, 1851, 2083, 2107, 1576, 1578, 1581, 1582],
     [1584, 1593, 1601, 1606, 1633, 1638, 1832, 1834],
     [1837, 1838, 1840, 1849, 1857, 1862, 1889, 1894],
     [2088, 2090, 2093, 2094, 2096, 2105, 2113, 2118],
     [2145, 2150, 1033, 1037, 1056, 1057, 1061, 1063],
     [1070, 1150, 1581, 1616, 1648, 1837, 2093, 2128],
     [2160, 1066, 1067, 1119, 1120, 1584, 1593, 1601],
     [1626, 1633, 1658, 1840, 1849, 1857, 1882, 1889],
     [1914, 2096, 2105, 2113, 2138, 2145, 2170, 0],
     [1033, 1037, 1056, 1057, 1061, 1063, 1070, 1150],
     [1581, 1595, 1597, 1837, 1851, 1853, 2093, 2107],
     [2109, 1066, 1067, 1119, 1120, 1584, 1593, 1601],
     [1626, 1633, 1658, 1840, 1849, 1857, 1882, 1889],
     [1914, 2096, 2105, 2113, 2138, 2145, 2170, 548],
     [550, 559, 570, 605, 1033, 1037, 1056, 1058],
     [1120, 1569, 1573, 1575, 1631, 1662, 1825, 1829],
     [1831, 1883, 1887, 1918, 2081, 2085, 2087, 2139],
     [2143, 2174, 552, 553, 1578, 1579, 1581, 1582],
     [1584, 1593, 1601, 1627, 1633, 1658, 1834, 1835],
     [1837, 1838, 1840, 1849, 1857, 1882, 1889, 1914],
     [2090, 2091, 2093, 2094, 2096, 2105, 2113, 2138],
     [2145, 2170, 0, 548, 550, 559, 570, 603],
     [605, 1033, 1037, 1056, 1120, 1569, 1573, 1575],
     [1595, 1631, 1662, 1825, 1829, 1831, 1851, 1887],
     [1918, 2081, 2085, 2087, 2107, 2143, 2174, 552],
     [553, 1578, 1579, 1581, 1582, 1584, 1593, 1601],
     [1626, 1633, 1658, 1834, 1835, 1837, 1838, 1840],
     [1849, 1857, 1882, 1889, 1914, 2090, 2091, 2093],
     [2094, 2096, 2105, 2113, 2138, 2145, 2170, 0],
     [1033, 1037, 1056, 1057, 1061, 1063, 1083, 1150],
     [1066, 1067, 1069, 1070, 1095, 1114, 1119, 1120],
     [1127, 1146, 1584, 1593, 1601, 1606, 1633, 1638],
     [1840, 1849, 1857, 1862, 1889, 1894, 2096, 2105],
     [2113, 2118, 2145, 2150, 0, 1033, 1037, 1056],
     [1057, 1061, 1063, 1083, 1150, 1066, 1067, 1069],
     [1070, 1095, 1114, 1119, 1120, 1127, 1146, 1584],
     [1593, 1601, 1606, 1633, 1638, 1840, 1849, 1857],
     [1862, 1889, 1894, 2096, 2105, 2113, 2118, 2145],
     [2150, 0, 545, 549, 571, 605, 607, 638],
     [1850, 2106, 548, 555, 557, 559, 583, 603],
     [615, 634, 1584, 1594, 1601, 1606, 1633, 1638],
     [1840, 1849, 1857, 1862, 1889, 1894, 2096, 2105],
     [2113, 2118, 2145, 2150, 0, 545, 549, 571],
     [605, 607, 638, 1850, 2106, 548, 555, 557],
     [559, 583, 603, 615, 634, 1584, 1594, 1601],
     [1606, 1633, 1638, 1840, 1849, 1857, 1862, 1889],
     [1894, 2096, 2105, 2113, 2118, 2145, 2150, 0],
     [545, 549, 571, 605, 607, 638, 1850, 2106],
     [548, 555, 557, 559, 583, 603, 615, 634],
     [1584, 1594, 1601, 1606, 1633, 1638, 1840, 1849],
     [1857, 1862, 1889, 1894, 2096, 2105, 2113, 2118],
     [2145, 2150, 0, 545, 549, 571, 605, 607],
     [638, 1850, 2106, 548, 555, 557, 559, 583],
     [603, 615, 634, 1584, 1594, 1601, 1606, 1633],
     [1638, 1840, 1849, 1857, 1862, 1889, 1894, 2096],
     [2105, 2113, 2118, 2145, 2150, 0, 545, 549],
     [571, 605, 607, 638, 1594, 1850, 2106, 548],
     [555, 557, 569, 577, 603, 609, 634, 0],
     [545, 549, 571, 605, 607, 638, 1850, 2106],
     [548, 555, 557, 559, 583, 603, 615, 634]]"

definition sup_trans_keys_48 :: "int list list" where
  "sup_trans_keys_48 =
    [[1584, 1594, 1601, 1606, 1633, 1638, 1840, 1849],
     [1857, 1862, 1889, 1894, 2096, 2105, 2113, 2118],
     [2145, 2150, 0, 545, 549, 571, 605, 607],
     [638, 1850, 2106, 548, 555, 557, 559, 583],
     [603, 615, 634, 1584, 1594, 1601, 1606, 1633],
     [1638, 1840, 1849, 1857, 1862, 1889, 1894, 2096],
     [2105, 2113, 2118, 2145, 2150, 0, 545, 549],
     [571, 605, 607, 638, 1850, 2106, 548, 555],
     [557, 559, 583, 603, 615, 634, 1584, 1594],
     [1601, 1606, 1633, 1638, 1840, 1849, 1857, 1862],
     [1889, 1894, 2096, 2105, 2113, 2118, 2145, 2150],
     [0, 545, 549, 571, 605, 607, 638, 1850],
     [2106, 548, 555, 557, 559, 583, 603, 615],
     [634, 1584, 1594, 1601, 1606, 1633, 1638, 1840],
     [1849, 1857, 1862, 1889, 1894, 2096, 2105, 2113],
     [2118, 2145, 2150, 0, 545, 549, 571, 605],
     [607, 638, 1594, 1850, 2106, 548, 555, 557],
     [569, 577, 603, 609, 634, 0, 545, 549],
     [571, 605, 607, 638, 1850, 2106, 548, 555],
     [557, 559, 583, 603, 615, 634, 1584, 1594],
     [1601, 1606, 1633, 1638, 1840, 1849, 1857, 1862],
     [1889, 1894, 2096, 2105, 2113, 2118, 2145, 2150],
     [0, 545, 549, 571, 605, 607, 638, 1850],
     [2106, 548, 555, 557, 559, 583, 603, 615],
     [634, 1584, 1594, 1601, 1606, 1633, 1638, 1840],
     [1849, 1857, 1862, 1889, 1894, 2096, 2105, 2113],
     [2118, 2145, 2150, 0, 545, 549, 571, 605],
     [607, 638, 1850, 2106, 548, 555, 557, 559],
     [583, 603, 615, 634, 1584, 1594, 1601, 1606],
     [1633, 1638, 1840, 1849, 1857, 1862, 1889, 1894],
     [2096, 2105, 2113, 2118, 2145, 2150, 0, 545],
     [549, 571, 605, 607, 638, 1850, 2106, 548],
     [555, 557, 559, 583, 603, 615, 634, 1584],
     [1594, 1601, 1606, 1633, 1638, 1840, 1849, 1857],
     [1862, 1889, 1894, 2096, 2105, 2113, 2118, 2145],
     [2150, 0, 545, 549, 571, 605, 607, 638],
     [1594, 1850, 2106, 548, 555, 557, 569, 577],
     [603, 609, 634, 0, 545, 549, 571, 605],
     [607, 638, 1850, 2106, 548, 555, 557, 559],
     [583, 603, 615, 634, 1584, 1594, 1601, 1606],
     [1633, 1638, 1840, 1849, 1857, 1862, 1889, 1894],
     [2096, 2105, 2113, 2118, 2145, 2150, 0, 545],
     [549, 571, 605, 607, 638, 1850, 2106, 548],
     [555, 557, 559, 583, 603, 615, 634, 1584],
     [1594, 1601, 1606, 1633, 1638, 1840, 1849, 1857],
     [1862, 1889, 1894, 2096, 2105, 2113, 2118, 2145],
     [2150, 0, 545, 549, 571, 605, 607, 638],
     [1850, 2106, 548, 555, 557, 559, 583, 603],
     [615, 634, 1584, 1594, 1601, 1606, 1633, 1638],
     [1840, 1849, 1857, 1862, 1889, 1894, 2096, 2105],
     [2113, 2118, 2145, 2150, 0, 545, 549, 571],
     [605, 607, 638, 1850, 2106, 548, 555, 557],
     [559, 583, 603, 615, 634, 1584, 1594, 1601],
     [1606, 1633, 1638, 1840, 1849, 1857, 1862, 1889],
     [1894, 2096, 2105, 2113, 2118, 2145, 2150, 0],
     [545, 549, 571, 605, 607, 638, 1594, 1850],
     [2106, 548, 555, 557, 569, 577, 603, 609],
     [634, 0, 545, 549, 571, 605, 607, 638],
     [1850, 2106, 548, 555, 557, 559, 583, 603],
     [615, 634, 1584, 1594, 1601, 1606, 1633, 1638],
     [1840, 1849, 1857, 1862, 1889, 1894, 2096, 2105],
     [2113, 2118, 2145, 2150, 0, 545, 549, 571],
     [605, 607, 638, 1850, 2106, 548, 555, 557],
     [559, 583, 603, 615, 634, 1584, 1594, 1601],
     [1606, 1633, 1638, 1840, 1849, 1857, 1862, 1889],
     [1894, 2096, 2105, 2113, 2118, 2145, 2150, 0],
     [545, 549, 571, 605, 607, 638, 1850, 2106],
     [548, 555, 557, 559, 583, 603, 615, 634],
     [1584, 1594, 1601, 1606, 1633, 1638, 1840, 1849],
     [1857, 1862, 1889, 1894, 2096, 2105, 2113, 2118],
     [2145, 2150, 0, 545, 549, 571, 605, 607],
     [638, 1850, 2106, 548, 555, 557, 559, 583],
     [603, 615, 634, 1584, 1594, 1601, 1606, 1633],
     [1638, 1840, 1849, 1857, 1862, 1889, 1894, 2096],
     [2105, 2113, 2118, 2145, 2150, 0, 545, 549],
     [571, 605, 607, 638, 1594, 1850, 2106, 548],
     [555, 557, 569, 577, 603, 609, 634, 0],
     [545, 549, 571, 605, 607, 638, 1850, 2106],
     [548, 555, 557, 559, 583, 603, 615, 634],
     [1584, 1594, 1601, 1606, 1633, 1638, 1840, 1849],
     [1857, 1862, 1889, 1894, 2096, 2105, 2113, 2118],
     [2145, 2150, 0, 545, 549, 571, 605, 607],
     [638, 1850, 2106, 548, 555, 557, 559, 583],
     [603, 615, 634, 1584, 1594, 1601, 1606, 1633],
     [1638, 1840, 1849, 1857, 1862, 1889, 1894, 2096],
     [2105, 2113, 2118, 2145, 2150, 0, 545, 549],
     [571, 605, 607, 638, 1850, 2106, 548, 555],
     [557, 559, 583, 603, 615, 634, 1584, 1594],
     [1601, 1606, 1633, 1638, 1840, 1849, 1857, 1862],
     [1889, 1894, 2096, 2105, 2113, 2118, 2145, 2150],
     [0, 545, 549, 571, 605, 607, 638, 1850],
     [2106, 548, 555, 557, 559, 583, 603, 615],
     [634, 1584, 1594, 1601, 1606, 1633, 1638, 1840],
     [1849, 1857, 1862, 1889, 1894, 2096, 2105, 2113],
     [2118, 2145, 2150, 0, 545, 549, 571, 605],
     [607, 638, 1594, 1850, 2106, 548, 555, 557],
     [569, 577, 603, 609, 634, 0, 545, 549],
     [571, 605, 607, 638, 1840, 1841, 1842, 1850],
     [2096, 2097, 2098, 2106, 548, 555, 557, 559],
     [583, 603, 615, 634, 1584, 1594, 1601, 1606],
     [1633, 1638, 1843, 1849, 1857, 1862, 1889, 1894],
     [2099, 2105, 2113, 2118, 2145, 2150, 0, 545],
     [549, 557, 559, 571, 605, 607, 638, 1582],
     [1838, 1850, 2094, 2106, 548, 555, 583, 603],
     [615, 634, 1584, 1594, 1601, 1606, 1633, 1638],
     [1840, 1849, 1857, 1862, 1889, 1894, 2096, 2105],
     [2113, 2118, 2145, 2150, 0, 545, 549, 570],
     [571, 605, 607, 638, 1840, 1841, 1842, 2096],
     [2097, 2098, 548, 555, 557, 559, 577, 603],
     [609, 634, 1584, 1593, 1843, 1849, 2099, 2105],
     [0, 545, 549, 557, 571, 605, 607, 638],
     [1582, 1838, 2094, 548, 555, 559, 570, 577],
     [603, 609, 634, 0, 545, 549, 570, 571],
     [605, 607, 638, 1840, 1841, 1842, 2096, 2097],
     [2098, 548, 555, 557, 559, 577, 603, 609],
     [634, 1584, 1593, 1843, 1849, 2099, 2105, 0],
     [545, 549, 557, 571, 605, 607, 638, 1582],
     [1838, 2094, 548, 555, 559, 570, 577, 603],
     [609, 634, 0, 545, 549, 570, 571, 605],
     [607, 638, 1840, 1841, 1842, 2096, 2097, 2098],
     [548, 555, 557, 559, 577, 603, 609, 634],
     [1584, 1593, 1843, 1849, 2099, 2105, 0, 545],
     [549, 571, 607, 638, 1629, 1885, 2141, 548],
     [555, 557, 570, 577, 603, 609, 634, 0],
     [545, 549, 605, 607, 638, 1033, 1037, 1056],
     [1595, 1851, 2107, 548, 555, 557, 570, 577],
     [603, 609, 634, 0, 545, 549, 570, 571],
     [607, 638, 1629, 1885, 2141, 548, 555, 557],
     [559, 577, 603, 609, 634, 1584, 1593, 1840],
     [1849, 2096, 2105, 0, 545, 549, 570, 571],
     [607, 638, 1629, 1885, 2141, 548, 555, 557],
     [559, 577, 603, 609, 634, 1584, 1593, 1840],
     [1849, 2096, 2105, 0, 545, 549, 570, 571],
     [607, 638, 1629, 1845, 1885, 2101, 2141, 548],
     [555, 557, 559, 577, 603, 609, 634, 1584],
     [1593, 1840, 1844, 1846, 1849, 2096, 2100, 2102],
     [2105, 0, 545, 549, 571, 607, 638, 1629],
     [1885, 2141, 548, 555, 557, 559, 566, 570],
     [577, 603, 609, 634, 1584, 1589, 1840, 1845],
     [2096, 2101, 0, 545, 549, 557, 559, 570],
     [571, 605, 607, 638, 1582, 1838, 2094, 548],
     [555, 577, 603, 609, 634, 1584, 1593, 1840],
     [1849, 2096, 2105, 0, 545, 549, 557, 559],
     [570, 571, 605, 607, 638, 1582, 1838, 2094],
     [548, 555, 577, 603, 609, 634, 1584, 1593],
     [1840, 1849, 2096, 2105, 0, 545, 549, 557],
     [559, 570, 571, 605, 607, 638, 1582, 1838],
     [1845, 2094, 2101, 548, 555, 577, 603, 609],
     [634, 1584, 1593, 1840, 1844, 1846, 1849, 2096],
     [2100, 2102, 2105, 0, 545, 549, 557, 559]]"

definition sup_trans_keys_49 :: "int list list" where
  "sup_trans_keys_49 =
    [[571, 605, 607, 638, 1582, 1838, 2094, 548],
     [555, 566, 570, 577, 603, 609, 634, 1584],
     [1589, 1840, 1845, 2096, 2101, 0, 545, 549],
     [557, 559, 570, 571, 605, 607, 638, 1582],
     [1838, 2094, 548, 555, 577, 603, 609, 634],
     [1584, 1593, 1840, 1849, 2096, 2105, 0, 545],
     [549, 557, 559, 570, 571, 605, 607, 638],
     [1582, 1838, 2094, 548, 555, 577, 603, 609],
     [634, 1584, 1593, 1840, 1849, 2096, 2105, 0],
     [545, 549, 557, 559, 570, 571, 605, 607],
     [638, 1582, 1838, 1845, 2094, 2101, 548, 555],
     [577, 603, 609, 634, 1584, 1593, 1840, 1844],
     [1846, 1849, 2096, 2100, 2102, 2105, 0, 545],
     [549, 557, 559, 571, 605, 607, 638, 1582],
     [1838, 2094, 548, 555, 566, 570, 577, 603],
     [609, 634, 1584, 1589, 1840, 1845, 2096, 2101],
     [0, 545, 549, 571, 605, 607, 638, 1850],
     [2106, 548, 555, 557, 559, 583, 603, 615],
     [634, 1584, 1594, 1601, 1606, 1633, 1638, 1840],
     [1849, 1857, 1862, 1889, 1894, 2096, 2105, 2113],
     [2118, 2145, 2150, 0, 545, 549, 571, 605],
     [607, 638, 1850, 2106, 548, 555, 557, 559],
     [583, 603, 615, 634, 1584, 1594, 1601, 1606],
     [1633, 1638, 1840, 1849, 1857, 1862, 1889, 1894],
     [2096, 2105, 2113, 2118, 2145, 2150, 0, 545],
     [549, 571, 605, 607, 638, 1594, 1850, 2106],
     [548, 555, 557, 569, 577, 603, 609, 634],
     [0, 545, 549, 571, 605, 607, 638, 1850],
     [2106, 548, 555, 557, 559, 583, 603, 615],
     [634, 1584, 1594, 1601, 1606, 1633, 1638, 1840],
     [1849, 1857, 1862, 1889, 1894, 2096, 2105, 2113],
     [2118, 2145, 2150, 0, 545, 549, 570, 571],
     [607, 638, 1629, 1885, 2141, 548, 555, 557],
     [559, 583, 603, 615, 634, 1584, 1593, 1601],
     [1606, 1633, 1638, 1840, 1849, 1857, 1862, 1889],
     [1894, 2096, 2105, 2113, 2118, 2145, 2150, 0],
     [545, 549, 570, 571, 607, 638, 1629, 1885],
     [2141, 548, 555, 557, 559, 583, 603, 615],
     [634, 1584, 1593, 1601, 1606, 1633, 1638, 1840],
     [1849, 1857, 1862, 1889, 1894, 2096, 2105, 2113],
     [2118, 2145, 2150, 0, 545, 549, 570, 571],
     [607, 638, 1629, 1885, 2141, 548, 555, 557],
     [559, 583, 603, 615, 634, 1584, 1593, 1601],
     [1606, 1633, 1638, 1840, 1849, 1857, 1862, 1889],
     [1894, 2096, 2105, 2113, 2118, 2145, 2150, 0],
     [545, 549, 557, 559, 571, 605, 607, 638],
     [1582, 1838, 1850, 2094, 2106, 548, 555, 583],
     [603, 615, 634, 1584, 1594, 1601, 1606, 1633],
     [1638, 1840, 1849, 1857, 1862, 1889, 1894, 2096],
     [2105, 2113, 2118, 2145, 2150, 0, 545, 549],
     [557, 559, 571, 605, 607, 638, 1582, 1838],
     [1850, 2094, 2106, 548, 555, 583, 603, 615],
     [634, 1584, 1594, 1601, 1606, 1633, 1638, 1840],
     [1849, 1857, 1862, 1889, 1894, 2096, 2105, 2113],
     [2118, 2145, 2150, 0, 545, 549, 557, 559],
     [571, 605, 607, 638, 1582, 1838, 1850, 2094],
     [2106, 548, 555, 583, 603, 615, 634, 1584],
     [1594, 1601, 1606, 1633, 1638, 1840, 1849, 1857],
     [1862, 1889, 1894, 2096, 2105, 2113, 2118, 2145],
     [2150, 0, 545, 549, 557, 559, 571, 605],
     [607, 638, 1582, 1838, 1845, 1850, 2094, 2101],
     [2106, 548, 555, 583, 603, 615, 634, 1584],
     [1594, 1601, 1606, 1633, 1638, 1840, 1844, 1846],
     [1849, 1857, 1862, 1889, 1894, 2096, 2100, 2102],
     [2105, 2113, 2118, 2145, 2150, 0, 545, 549],
     [557, 559, 571, 605, 607, 638, 1582, 1838],
     [1850, 2094, 2106, 548, 555, 583, 603, 615],
     [634, 1584, 1594, 1601, 1606, 1633, 1638, 1840],
     [1845, 1846, 1849, 1857, 1862, 1889, 1894, 2096],
     [2101, 2102, 2105, 2113, 2118, 2145, 2150, 0],
     [545, 549, 557, 559, 571, 605, 607, 638],
     [1582, 1838, 1850, 2094, 2106, 548, 555, 583],
     [603, 615, 634, 1584, 1594, 1601, 1606, 1633],
     [1638, 1840, 1849, 1857, 1862, 1889, 1894, 2096],
     [2105, 2113, 2118, 2145, 2150, 0, 545, 549],
     [557, 559, 571, 605, 607, 638, 1582, 1838],
     [1850, 2094, 2106, 548, 555, 583, 603, 615],
     [634, 1584, 1594, 1601, 1606, 1633, 1638, 1840],
     [1849, 1857, 1862, 1889, 1894, 2096, 2105, 2113],
     [2118, 2145, 2150, 0, 545, 549, 570, 571],
     [607, 638, 1629, 1885, 2141, 548, 555, 557],
     [559, 583, 603, 615, 634, 1584, 1593, 1601],
     [1606, 1633, 1638, 1840, 1849, 1857, 1862, 1889],
     [1894, 2096, 2105, 2113, 2118, 2145, 2150, 0],
     [545, 549, 571, 605, 607, 638, 1850, 2106],
     [548, 555, 557, 559, 583, 603, 615, 634],
     [1584, 1594, 1601, 1606, 1633, 1638, 1840, 1849],
     [1857, 1862, 1889, 1894, 2096, 2105, 2113, 2118],
     [2145, 2150, 0, 545, 549, 570, 571, 607],
     [638, 1629, 1840, 1841, 1842, 1885, 2096, 2097],
     [2098, 2141, 548, 555, 557, 559, 583, 603],
     [615, 634, 1584, 1593, 1601, 1606, 1633, 1638],
     [1843, 1849, 1857, 1862, 1889, 1894, 2099, 2105],
     [2113, 2118, 2145, 2150, 0, 545, 549, 557],
     [559, 571, 607, 638, 1582, 1629, 1838, 1850],
     [1885, 2094, 2106, 2141, 548, 555, 583, 603],
     [615, 634, 1584, 1594, 1601, 1606, 1633, 1638],
     [1840, 1849, 1857, 1862, 1889, 1894, 2096, 2105],
     [2113, 2118, 2145, 2150, 0, 545, 549, 571],
     [607, 638, 1629, 1850, 1885, 2106, 2141, 548],
     [555, 557, 559, 583, 603, 615, 634, 1584],
     [1594, 1601, 1606, 1633, 1638, 1840, 1849, 1857],
     [1862, 1889, 1894, 2096, 2105, 2113, 2118, 2145],
     [2150, 0, 545, 549, 571, 607, 638, 1629],
     [1850, 1885, 2106, 2141, 548, 555, 557, 559],
     [583, 603, 615, 634, 1584, 1594, 1601, 1606],
     [1633, 1638, 1840, 1849, 1857, 1862, 1889, 1894],
     [2096, 2105, 2113, 2118, 2145, 2150, 0, 545],
     [549, 571, 607, 638, 1594, 1629, 1850, 1885],
     [2106, 2141, 548, 555, 557, 569, 577, 603],
     [609, 634, 0, 545, 549, 570, 571, 605],
     [607, 638, 548, 555, 557, 559, 583, 603],
     [615, 634, 1584, 1593, 1601, 1606, 1633, 1638],
     [1840, 1849, 1857, 1862, 1889, 1894, 2096, 2105],
     [2113, 2118, 2145, 2150, 0, 545, 549, 557],
     [559, 571, 607, 638, 1582, 1629, 1838, 1850],
     [1885, 2094, 2106, 2141, 548, 555, 583, 603],
     [615, 634, 1584, 1594, 1601, 1606, 1633, 1638],
     [1840, 1849, 1857, 1862, 1889, 1894, 2096, 2105],
     [2113, 2118, 2145, 2150, 0, 545, 549, 557],
     [559, 571, 607, 638, 1582, 1629, 1838, 1850],
     [1885, 2094, 2106, 2141, 548, 555, 583, 603],
     [615, 634, 1584, 1594, 1601, 1606, 1633, 1638],
     [1840, 1849, 1857, 1862, 1889, 1894, 2096, 2105],
     [2113, 2118, 2145, 2150, 0, 545, 549, 557],
     [559, 571, 607, 638, 1582, 1629, 1838, 1850],
     [1885, 2094, 2106, 2141, 548, 555, 583, 603],
     [615, 634, 1584, 1594, 1601, 1606, 1633, 1638],
     [1840, 1849, 1857, 1862, 1889, 1894, 2096, 2105],
     [2113, 2118, 2145, 2150, 0, 545, 549, 557],
     [559, 571, 607, 638, 1582, 1629, 1838, 1845],
     [1850, 1885, 2094, 2101, 2106, 2141, 548, 555],
     [583, 603, 615, 634, 1584, 1594, 1601, 1606],
     [1633, 1638, 1840, 1844, 1846, 1849, 1857, 1862],
     [1889, 1894, 2096, 2100, 2102, 2105, 2113, 2118],
     [2145, 2150, 0, 545, 549, 557, 559, 571],
     [607, 638, 1582, 1629, 1838, 1850, 1885, 2094],
     [2106, 2141, 548, 555, 583, 603, 615, 634],
     [1584, 1594, 1601, 1606, 1633, 1638, 1840, 1845],
     [1846, 1849, 1857, 1862, 1889, 1894, 2096, 2101],
     [2102, 2105, 2113, 2118, 2145, 2150, 0, 545],
     [549, 557, 559, 571, 607, 638, 1582, 1629],
     [1838, 1850, 1885, 2094, 2106, 2141, 548, 555],
     [583, 603, 615, 634, 1584, 1594, 1601, 1606],
     [1633, 1638, 1840, 1849, 1857, 1862, 1889, 1894],
     [2096, 2105, 2113, 2118, 2145, 2150, 0, 545],
     [549, 557, 559, 571, 607, 638, 1582, 1629],
     [1838, 1850, 1885, 2094, 2106, 2141, 548, 555],
     [583, 603, 615, 634, 1584, 1594, 1601, 1606],
     [1633, 1638, 1840, 1849, 1857, 1862, 1889, 1894]]"

definition sup_trans_keys_50 :: "int list list" where
  "sup_trans_keys_50 =
    [[2096, 2105, 2113, 2118, 2145, 2150, 0, 545],
     [549, 571, 607, 638, 1629, 1850, 1885, 2106],
     [2141, 548, 555, 557, 559, 583, 603, 615],
     [634, 1584, 1594, 1601, 1606, 1633, 1638, 1840],
     [1849, 1857, 1862, 1889, 1894, 2096, 2105, 2113],
     [2118, 2145, 2150, 0, 545, 549, 570, 571],
     [607, 638, 1629, 1840, 1841, 1842, 1885, 2096],
     [2097, 2098, 2141, 548, 555, 557, 559, 583],
     [603, 615, 634, 1584, 1593, 1601, 1606, 1633],
     [1638, 1843, 1849, 1857, 1862, 1889, 1894, 2099],
     [2105, 2113, 2118, 2145, 2150, 0, 545, 549],
     [557, 559, 571, 607, 638, 1582, 1629, 1838],
     [1850, 1885, 2094, 2106, 2141, 548, 555, 583],
     [603, 615, 634, 1584, 1594, 1601, 1606, 1633],
     [1638, 1840, 1849, 1857, 1862, 1889, 1894, 2096],
     [2105, 2113, 2118, 2145, 2150, 0, 545, 549],
     [571, 607, 638, 1629, 1850, 1885, 2106, 2141],
     [548, 555, 557, 559, 583, 603, 615, 634],
     [1584, 1594, 1601, 1606, 1633, 1638, 1840, 1849],
     [1857, 1862, 1889, 1894, 2096, 2105, 2113, 2118],
     [2145, 2150, 0, 545, 549, 571, 607, 638],
     [1629, 1850, 1885, 2106, 2141, 548, 555, 557],
     [559, 583, 603, 615, 634, 1584, 1594, 1601],
     [1606, 1633, 1638, 1840, 1849, 1857, 1862, 1889],
     [1894, 2096, 2105, 2113, 2118, 2145, 2150, 0],
     [545, 549, 571, 607, 638, 1594, 1629, 1850],
     [1885, 2106, 2141, 548, 555, 557, 569, 577],
     [603, 609, 634, 0, 545, 549, 570, 571],
     [605, 607, 638, 1840, 1841, 1842, 2096, 2097],
     [2098, 548, 555, 557, 559, 583, 603, 615],
     [634, 1584, 1593, 1601, 1606, 1633, 1638, 1843],
     [1849, 1857, 1862, 1889, 1894, 2099, 2105, 2113],
     [2118, 2145, 2150, 0, 545, 549, 557, 559],
     [571, 607, 638, 1582, 1629, 1838, 1850, 1885],
     [2094, 2106, 2141, 548, 555, 583, 603, 615],
     [634, 1584, 1594, 1601, 1606, 1633, 1638, 1840],
     [1849, 1857, 1862, 1889, 1894, 2096, 2105, 2113],
     [2118, 2145, 2150, 0, 545, 549, 557, 559],
     [571, 607, 638, 1582, 1629, 1838, 1850, 1885],
     [2094, 2106, 2141, 548, 555, 583, 603, 615],
     [634, 1584, 1594, 1601, 1606, 1633, 1638, 1840],
     [1849, 1857, 1862, 1889, 1894, 2096, 2105, 2113],
     [2118, 2145, 2150, 0, 545, 549, 557, 559],
     [571, 607, 638, 1582, 1629, 1838, 1850, 1885],
     [2094, 2106, 2141, 548, 555, 583, 603, 615],
     [634, 1584, 1594, 1601, 1606, 1633, 1638, 1840],
     [1849, 1857, 1862, 1889, 1894, 2096, 2105, 2113],
     [2118, 2145, 2150, 0, 545, 549, 557, 559],
     [571, 607, 638, 1582, 1629, 1838, 1845, 1850],
     [1885, 2094, 2101, 2106, 2141, 548, 555, 583],
     [603, 615, 634, 1584, 1594, 1601, 1606, 1633],
     [1638, 1840, 1844, 1846, 1849, 1857, 1862, 1889],
     [1894, 2096, 2100, 2102, 2105, 2113, 2118, 2145],
     [2150, 0, 545, 549, 557, 559, 571, 607],
     [638, 1582, 1629, 1838, 1850, 1885, 2094, 2106],
     [2141, 548, 555, 583, 603, 615, 634, 1584],
     [1594, 1601, 1606, 1633, 1638, 1840, 1845, 1846],
     [1849, 1857, 1862, 1889, 1894, 2096, 2101, 2102],
     [2105, 2113, 2118, 2145, 2150, 0, 545, 549],
     [557, 559, 571, 607, 638, 1582, 1629, 1838],
     [1850, 1885, 2094, 2106, 2141, 548, 555, 583],
     [603, 615, 634, 1584, 1594, 1601, 1606, 1633],
     [1638, 1840, 1849, 1857, 1862, 1889, 1894, 2096],
     [2105, 2113, 2118, 2145, 2150, 0, 545, 549],
     [557, 559, 571, 607, 638, 1582, 1629, 1838],
     [1850, 1885, 2094, 2106, 2141, 548, 555, 583],
     [603, 615, 634, 1584, 1594, 1601, 1606, 1633],
     [1638, 1840, 1849, 1857, 1862, 1889, 1894, 2096],
     [2105, 2113, 2118, 2145, 2150, 0, 545, 549],
     [571, 607, 638, 1629, 1850, 1885, 2106, 2141],
     [548, 555, 557, 559, 583, 603, 615, 634],
     [1584, 1594, 1601, 1606, 1633, 1638, 1840, 1849],
     [1857, 1862, 1889, 1894, 2096, 2105, 2113, 2118],
     [2145, 2150, 0, 545, 549, 570, 571, 607],
     [638, 1629, 1840, 1841, 1842, 1885, 2096, 2097],
     [2098, 2141, 548, 555, 557, 559, 583, 603],
     [615, 634, 1584, 1593, 1601, 1606, 1633, 1638],
     [1843, 1849, 1857, 1862, 1889, 1894, 2099, 2105],
     [2113, 2118, 2145, 2150, 0, 545, 549, 557],
     [559, 571, 607, 638, 1582, 1629, 1838, 1850],
     [1885, 2094, 2106, 2141, 548, 555, 583, 603],
     [615, 634, 1584, 1594, 1601, 1606, 1633, 1638],
     [1840, 1849, 1857, 1862, 1889, 1894, 2096, 2105],
     [2113, 2118, 2145, 2150, 0, 545, 549, 571],
     [607, 638, 1629, 1850, 1885, 2106, 2141, 548],
     [555, 557, 559, 583, 603, 615, 634, 1584],
     [1594, 1601, 1606, 1633, 1638, 1840, 1849, 1857],
     [1862, 1889, 1894, 2096, 2105, 2113, 2118, 2145],
     [2150, 0, 545, 549, 571, 607, 638, 1629],
     [1850, 1885, 2106, 2141, 548, 555, 557, 559],
     [583, 603, 615, 634, 1584, 1594, 1601, 1606],
     [1633, 1638, 1840, 1849, 1857, 1862, 1889, 1894],
     [2096, 2105, 2113, 2118, 2145, 2150, 0, 545],
     [549, 571, 607, 638, 1594, 1629, 1850, 1885],
     [2106, 2141, 548, 555, 557, 569, 577, 603],
     [609, 634, 0, 545, 549, 570, 571, 605],
     [607, 638, 1840, 1841, 1842, 2096, 2097, 2098],
     [548, 555, 557, 559, 583, 603, 615, 634],
     [1584, 1593, 1601, 1606, 1633, 1638, 1843, 1849],
     [1857, 1862, 1889, 1894, 2099, 2105, 2113, 2118],
     [2145, 2150, 0, 545, 549, 557, 559, 571],
     [607, 638, 1582, 1629, 1838, 1850, 1885, 2094],
     [2106, 2141, 548, 555, 583, 603, 615, 634],
     [1584, 1594, 1601, 1606, 1633, 1638, 1840, 1849],
     [1857, 1862, 1889, 1894, 2096, 2105, 2113, 2118],
     [2145, 2150, 0, 545, 549, 557, 559, 571],
     [607, 638, 1582, 1629, 1838, 1850, 1885, 2094],
     [2106, 2141, 548, 555, 583, 603, 615, 634],
     [1584, 1594, 1601, 1606, 1633, 1638, 1840, 1849],
     [1857, 1862, 1889, 1894, 2096, 2105, 2113, 2118],
     [2145, 2150, 0, 545, 549, 557, 559, 571],
     [607, 638, 1582, 1629, 1838, 1850, 1885, 2094],
     [2106, 2141, 548, 555, 583, 603, 615, 634],
     [1584, 1594, 1601, 1606, 1633, 1638, 1840, 1849],
     [1857, 1862, 1889, 1894, 2096, 2105, 2113, 2118],
     [2145, 2150, 0, 545, 549, 557, 559, 571],
     [607, 638, 1582, 1629, 1838, 1845, 1850, 1885],
     [2094, 2101, 2106, 2141, 548, 555, 583, 603],
     [615, 634, 1584, 1594, 1601, 1606, 1633, 1638],
     [1840, 1844, 1846, 1849, 1857, 1862, 1889, 1894],
     [2096, 2100, 2102, 2105, 2113, 2118, 2145, 2150],
     [0, 545, 549, 557, 559, 571, 607, 638],
     [1582, 1629, 1838, 1850, 1885, 2094, 2106, 2141],
     [548, 555, 583, 603, 615, 634, 1584, 1594],
     [1601, 1606, 1633, 1638, 1840, 1845, 1846, 1849],
     [1857, 1862, 1889, 1894, 2096, 2101, 2102, 2105],
     [2113, 2118, 2145, 2150, 0, 545, 549, 557],
     [559, 571, 607, 638, 1582, 1629, 1838, 1850],
     [1885, 2094, 2106, 2141, 548, 555, 583, 603],
     [615, 634, 1584, 1594, 1601, 1606, 1633, 1638],
     [1840, 1849, 1857, 1862, 1889, 1894, 2096, 2105],
     [2113, 2118, 2145, 2150, 0, 545, 549, 557],
     [559, 571, 607, 638, 1582, 1629, 1838, 1850],
     [1885, 2094, 2106, 2141, 548, 555, 583, 603],
     [615, 634, 1584, 1594, 1601, 1606, 1633, 1638],
     [1840, 1849, 1857, 1862, 1889, 1894, 2096, 2105],
     [2113, 2118, 2145, 2150, 0, 545, 549, 571],
     [607, 638, 1629, 1850, 1885, 2106, 2141, 548],
     [555, 557, 559, 583, 603, 615, 634, 1584],
     [1594, 1601, 1606, 1633, 1638, 1840, 1849, 1857],
     [1862, 1889, 1894, 2096, 2105, 2113, 2118, 2145],
     [2150, 0, 545, 549, 570, 571, 607, 638],
     [1629, 1840, 1841, 1842, 1885, 2096, 2097, 2098],
     [2141, 548, 555, 557, 559, 583, 603, 615],
     [634, 1584, 1593, 1601, 1606, 1633, 1638, 1843],
     [1849, 1857, 1862, 1889, 1894, 2099, 2105, 2113],
     [2118, 2145, 2150, 0, 545, 549, 557, 559],
     [571, 607, 638, 1582, 1629, 1838, 1850, 1885],
     [2094, 2106, 2141, 548, 555, 583, 603, 615],
     [634, 1584, 1594, 1601, 1606, 1633, 1638, 1840]]"

definition sup_trans_keys_51 :: "int list list" where
  "sup_trans_keys_51 =
    [[1849, 1857, 1862, 1889, 1894, 2096, 2105, 2113],
     [2118, 2145, 2150, 0, 545, 549, 571, 607],
     [638, 1629, 1850, 1885, 2106, 2141, 548, 555],
     [557, 559, 583, 603, 615, 634, 1584, 1594],
     [1601, 1606, 1633, 1638, 1840, 1849, 1857, 1862],
     [1889, 1894, 2096, 2105, 2113, 2118, 2145, 2150],
     [0, 545, 549, 571, 607, 638, 1629, 1850],
     [1885, 2106, 2141, 548, 555, 557, 559, 583],
     [603, 615, 634, 1584, 1594, 1601, 1606, 1633],
     [1638, 1840, 1849, 1857, 1862, 1889, 1894, 2096],
     [2105, 2113, 2118, 2145, 2150, 0, 545, 549],
     [571, 607, 638, 1594, 1629, 1850, 1885, 2106],
     [2141, 548, 555, 557, 569, 577, 603, 609],
     [634, 0, 545, 549, 570, 571, 605, 607],
     [638, 1840, 1841, 1842, 2096, 2097, 2098, 548],
     [555, 557, 559, 583, 603, 615, 634, 1584],
     [1593, 1601, 1606, 1633, 1638, 1843, 1849, 1857],
     [1862, 1889, 1894, 2099, 2105, 2113, 2118, 2145],
     [2150, 0, 545, 549, 557, 559, 571, 607],
     [638, 1582, 1629, 1838, 1850, 1885, 2094, 2106],
     [2141, 548, 555, 583, 603, 615, 634, 1584],
     [1594, 1601, 1606, 1633, 1638, 1840, 1849, 1857],
     [1862, 1889, 1894, 2096, 2105, 2113, 2118, 2145],
     [2150, 0, 545, 549, 557, 559, 571, 607],
     [638, 1582, 1629, 1838, 1850, 1885, 2094, 2106],
     [2141, 548, 555, 583, 603, 615, 634, 1584],
     [1594, 1601, 1606, 1633, 1638, 1840, 1849, 1857],
     [1862, 1889, 1894, 2096, 2105, 2113, 2118, 2145],
     [2150, 0, 545, 549, 557, 559, 571, 607],
     [638, 1582, 1629, 1838, 1850, 1885, 2094, 2106],
     [2141, 548, 555, 583, 603, 615, 634, 1584],
     [1594, 1601, 1606, 1633, 1638, 1840, 1849, 1857],
     [1862, 1889, 1894, 2096, 2105, 2113, 2118, 2145],
     [2150, 0, 545, 549, 557, 559, 571, 607],
     [638, 1582, 1629, 1838, 1845, 1850, 1885, 2094],
     [2101, 2106, 2141, 548, 555, 583, 603, 615],
     [634, 1584, 1594, 1601, 1606, 1633, 1638, 1840],
     [1844, 1846, 1849, 1857, 1862, 1889, 1894, 2096],
     [2100, 2102, 2105, 2113, 2118, 2145, 2150, 0],
     [545, 549, 557, 559, 571, 607, 638, 1582],
     [1629, 1838, 1850, 1885, 2094, 2106, 2141, 548],
     [555, 583, 603, 615, 634, 1584, 1594, 1601],
     [1606, 1633, 1638, 1840, 1845, 1846, 1849, 1857],
     [1862, 1889, 1894, 2096, 2101, 2102, 2105, 2113],
     [2118, 2145, 2150, 0, 545, 549, 557, 559],
     [571, 607, 638, 1582, 1629, 1838, 1850, 1885],
     [2094, 2106, 2141, 548, 555, 583, 603, 615],
     [634, 1584, 1594, 1601, 1606, 1633, 1638, 1840],
     [1849, 1857, 1862, 1889, 1894, 2096, 2105, 2113],
     [2118, 2145, 2150, 0, 545, 549, 557, 559],
     [571, 607, 638, 1582, 1629, 1838, 1850, 1885],
     [2094, 2106, 2141, 548, 555, 583, 603, 615],
     [634, 1584, 1594, 1601, 1606, 1633, 1638, 1840],
     [1849, 1857, 1862, 1889, 1894, 2096, 2105, 2113],
     [2118, 2145, 2150, 0, 545, 549, 571, 607],
     [638, 1629, 1850, 1885, 2106, 2141, 548, 555],
     [557, 559, 583, 603, 615, 634, 1584, 1594],
     [1601, 1606, 1633, 1638, 1840, 1849, 1857, 1862],
     [1889, 1894, 2096, 2105, 2113, 2118, 2145, 2150],
     [0, 545, 549, 570, 571, 607, 638, 1629],
     [1840, 1841, 1842, 1885, 2096, 2097, 2098, 2141],
     [548, 555, 557, 559, 583, 603, 615, 634],
     [1584, 1593, 1601, 1606, 1633, 1638, 1843, 1849],
     [1857, 1862, 1889, 1894, 2099, 2105, 2113, 2118],
     [2145, 2150, 0, 545, 549, 557, 559, 571],
     [607, 638, 1582, 1629, 1838, 1850, 1885, 2094],
     [2106, 2141, 548, 555, 583, 603, 615, 634],
     [1584, 1594, 1601, 1606, 1633, 1638, 1840, 1849],
     [1857, 1862, 1889, 1894, 2096, 2105, 2113, 2118],
     [2145, 2150, 0, 545, 549, 571, 607, 638],
     [1629, 1850, 1885, 2106, 2141, 548, 555, 557],
     [559, 583, 603, 615, 634, 1584, 1594, 1601],
     [1606, 1633, 1638, 1840, 1849, 1857, 1862, 1889],
     [1894, 2096, 2105, 2113, 2118, 2145, 2150, 0],
     [545, 549, 571, 607, 638, 1629, 1850, 1885],
     [2106, 2141, 548, 555, 557, 559, 583, 603],
     [615, 634, 1584, 1594, 1601, 1606, 1633, 1638],
     [1840, 1849, 1857, 1862, 1889, 1894, 2096, 2105],
     [2113, 2118, 2145, 2150, 0, 545, 549, 571],
     [607, 638, 1594, 1629, 1850, 1885, 2106, 2141],
     [548, 555, 557, 569, 577, 603, 609, 634],
     [0, 545, 549, 570, 571, 605, 607, 638],
     [1840, 1841, 1842, 2096, 2097, 2098, 548, 555],
     [557, 559, 583, 603, 615, 634, 1584, 1593],
     [1601, 1606, 1633, 1638, 1843, 1849, 1857, 1862],
     [1889, 1894, 2099, 2105, 2113, 2118, 2145, 2150],
     [0, 545, 549, 557, 559, 571, 607, 638],
     [1582, 1629, 1838, 1850, 1885, 2094, 2106, 2141],
     [548, 555, 583, 603, 615, 634, 1584, 1594],
     [1601, 1606, 1633, 1638, 1840, 1849, 1857, 1862],
     [1889, 1894, 2096, 2105, 2113, 2118, 2145, 2150],
     [0, 545, 549, 557, 559, 571, 607, 638],
     [1582, 1629, 1838, 1850, 1885, 2094, 2106, 2141],
     [548, 555, 583, 603, 615, 634, 1584, 1594],
     [1601, 1606, 1633, 1638, 1840, 1849, 1857, 1862],
     [1889, 1894, 2096, 2105, 2113, 2118, 2145, 2150],
     [0, 545, 549, 557, 559, 571, 607, 638],
     [1582, 1629, 1838, 1850, 1885, 2094, 2106, 2141],
     [548, 555, 583, 603, 615, 634, 1584, 1594],
     [1601, 1606, 1633, 1638, 1840, 1849, 1857, 1862],
     [1889, 1894, 2096, 2105, 2113, 2118, 2145, 2150],
     [0, 545, 549, 557, 559, 571, 607, 638],
     [1582, 1629, 1838, 1845, 1850, 1885, 2094, 2101],
     [2106, 2141, 548, 555, 583, 603, 615, 634],
     [1584, 1594, 1601, 1606, 1633, 1638, 1840, 1844],
     [1846, 1849, 1857, 1862, 1889, 1894, 2096, 2100],
     [2102, 2105, 2113, 2118, 2145, 2150, 0, 545],
     [549, 557, 559, 571, 607, 638, 1582, 1629],
     [1838, 1850, 1885, 2094, 2106, 2141, 548, 555],
     [583, 603, 615, 634, 1584, 1594, 1601, 1606],
     [1633, 1638, 1840, 1845, 1846, 1849, 1857, 1862],
     [1889, 1894, 2096, 2101, 2102, 2105, 2113, 2118],
     [2145, 2150, 0, 545, 549, 557, 559, 571],
     [607, 638, 1582, 1629, 1838, 1850, 1885, 2094],
     [2106, 2141, 548, 555, 583, 603, 615, 634],
     [1584, 1594, 1601, 1606, 1633, 1638, 1840, 1849],
     [1857, 1862, 1889, 1894, 2096, 2105, 2113, 2118],
     [2145, 2150, 0, 545, 549, 557, 559, 571],
     [607, 638, 1582, 1629, 1838, 1850, 1885, 2094],
     [2106, 2141, 548, 555, 583, 603, 615, 634],
     [1584, 1594, 1601, 1606, 1633, 1638, 1840, 1849],
     [1857, 1862, 1889, 1894, 2096, 2105, 2113, 2118],
     [2145, 2150, 0, 545, 549, 571, 607, 638],
     [1629, 1850, 1885, 2106, 2141, 548, 555, 557],
     [559, 583, 603, 615, 634, 1584, 1594, 1601],
     [1606, 1633, 1638, 1840, 1849, 1857, 1862, 1889],
     [1894, 2096, 2105, 2113, 2118, 2145, 2150, 0],
     [545, 549, 571, 605, 607, 638, 1594, 1850],
     [2106, 548, 555, 557, 569, 577, 603, 609],
     [634, 0, 545, 549, 570, 571, 607, 638],
     [1629, 1840, 1841, 1842, 1885, 2096, 2097, 2098],
     [2141, 548, 555, 557, 559, 583, 603, 615],
     [634, 1584, 1593, 1601, 1606, 1633, 1638, 1843],
     [1849, 1857, 1862, 1889, 1894, 2099, 2105, 2113],
     [2118, 2145, 2150, 0, 545, 549, 557, 559],
     [571, 607, 638, 1582, 1629, 1838, 1850, 1885],
     [2094, 2106, 2141, 548, 555, 583, 603, 615],
     [634, 1584, 1594, 1601, 1606, 1633, 1638, 1840],
     [1849, 1857, 1862, 1889, 1894, 2096, 2105, 2113],
     [2118, 2145, 2150, 0, 545, 549, 571, 607],
     [638, 1629, 1850, 1885, 2106, 2141, 548, 555],
     [557, 559, 583, 603, 615, 634, 1584, 1594],
     [1601, 1606, 1633, 1638, 1840, 1849, 1857, 1862],
     [1889, 1894, 2096, 2105, 2113, 2118, 2145, 2150],
     [0, 545, 549, 571, 607, 638, 1629, 1850],
     [1885, 2106, 2141, 548, 555, 557, 559, 583],
     [603, 615, 634, 1584, 1594, 1601, 1606, 1633],
     [1638, 1840, 1849, 1857, 1862, 1889, 1894, 2096],
     [2105, 2113, 2118, 2145, 2150, 0, 545, 549],
     [571, 607, 638, 1594, 1629, 1850, 1885, 2106]]"

definition sup_trans_keys_52 :: "int list list" where
  "sup_trans_keys_52 =
    [[2141, 548, 555, 557, 569, 577, 603, 609],
     [634, 0, 545, 549, 570, 571, 605, 607],
     [638, 1840, 1841, 1842, 2096, 2097, 2098, 548],
     [555, 557, 559, 583, 603, 615, 634, 1584],
     [1593, 1601, 1606, 1633, 1638, 1843, 1849, 1857],
     [1862, 1889, 1894, 2099, 2105, 2113, 2118, 2145],
     [2150, 0, 545, 549, 557, 559, 571, 607],
     [638, 1582, 1629, 1838, 1850, 1885, 2094, 2106],
     [2141, 548, 555, 583, 603, 615, 634, 1584],
     [1594, 1601, 1606, 1633, 1638, 1840, 1849, 1857],
     [1862, 1889, 1894, 2096, 2105, 2113, 2118, 2145],
     [2150, 0, 545, 549, 557, 559, 571, 607],
     [638, 1582, 1629, 1838, 1850, 1885, 2094, 2106],
     [2141, 548, 555, 583, 603, 615, 634, 1584],
     [1594, 1601, 1606, 1633, 1638, 1840, 1849, 1857],
     [1862, 1889, 1894, 2096, 2105, 2113, 2118, 2145],
     [2150, 0, 545, 549, 557, 559, 571, 607],
     [638, 1582, 1629, 1838, 1850, 1885, 2094, 2106],
     [2141, 548, 555, 583, 603, 615, 634, 1584],
     [1594, 1601, 1606, 1633, 1638, 1840, 1849, 1857],
     [1862, 1889, 1894, 2096, 2105, 2113, 2118, 2145],
     [2150, 0, 545, 549, 557, 559, 571, 607],
     [638, 1582, 1629, 1838, 1845, 1850, 1885, 2094],
     [2101, 2106, 2141, 548, 555, 583, 603, 615],
     [634, 1584, 1594, 1601, 1606, 1633, 1638, 1840],
     [1844, 1846, 1849, 1857, 1862, 1889, 1894, 2096],
     [2100, 2102, 2105, 2113, 2118, 2145, 2150, 0],
     [545, 549, 557, 559, 571, 607, 638, 1582],
     [1629, 1838, 1850, 1885, 2094, 2106, 2141, 548],
     [555, 583, 603, 615, 634, 1584, 1594, 1601],
     [1606, 1633, 1638, 1840, 1845, 1846, 1849, 1857],
     [1862, 1889, 1894, 2096, 2101, 2102, 2105, 2113],
     [2118, 2145, 2150, 0, 545, 549, 557, 559],
     [571, 607, 638, 1582, 1629, 1838, 1850, 1885],
     [2094, 2106, 2141, 548, 555, 583, 603, 615],
     [634, 1584, 1594, 1601, 1606, 1633, 1638, 1840],
     [1849, 1857, 1862, 1889, 1894, 2096, 2105, 2113],
     [2118, 2145, 2150, 0, 545, 549, 557, 559],
     [571, 607, 638, 1582, 1629, 1838, 1850, 1885],
     [2094, 2106, 2141, 548, 555, 583, 603, 615],
     [634, 1584, 1594, 1601, 1606, 1633, 1638, 1840],
     [1849, 1857, 1862, 1889, 1894, 2096, 2105, 2113],
     [2118, 2145, 2150, 0, 545, 549, 571, 607],
     [638, 1629, 1850, 1885, 2106, 2141, 548, 555],
     [557, 559, 583, 603, 615, 634, 1584, 1594],
     [1601, 1606, 1633, 1638, 1840, 1849, 1857, 1862],
     [1889, 1894, 2096, 2105, 2113, 2118, 2145, 2150],
     [0, 1033, 1037, 1056, 1057, 1061, 1063, 1070],
     [1150, 1581, 1595, 1597, 1608, 1640, 1837, 1851],
     [1853, 2093, 2107, 2109, 2120, 2152, 1066, 1067],
     [1119, 1120, 1584, 1593, 1601, 1626, 1633, 1658],
     [1840, 1849, 1857, 1882, 1889, 1914, 2096, 2105],
     [2113, 2138, 2145, 2170, 0, 1033, 1037, 1056],
     [1057, 1061, 1063, 1070, 1150, 1581, 1595, 1597],
     [1615, 1647, 1837, 1851, 1853, 2093, 2107, 2109],
     [2127, 2159, 1066, 1067, 1119, 1120, 1584, 1593],
     [1601, 1626, 1633, 1658, 1840, 1849, 1857, 1882],
     [1889, 1914, 2096, 2105, 2113, 2138, 2145, 2170],
     [0, 1033, 1037, 1056, 1057, 1061, 1063, 1070],
     [1150, 1581, 1595, 1597, 1614, 1646, 1837, 1851],
     [1853, 2093, 2107, 2109, 2126, 2158, 1066, 1067],
     [1119, 1120, 1584, 1593, 1601, 1626, 1633, 1658],
     [1840, 1849, 1857, 1882, 1889, 1914, 2096, 2105],
     [2113, 2138, 2145, 2170, 0, 1033, 1037, 1056],
     [1057, 1061, 1063, 1070, 1150, 1581, 1595, 1597],
     [1605, 1637, 1837, 1851, 1853, 2093, 2107, 2109],
     [2117, 2149, 1066, 1067, 1119, 1120, 1584, 1593],
     [1601, 1626, 1633, 1658, 1840, 1849, 1857, 1882],
     [1889, 1914, 2096, 2105, 2113, 2138, 2145, 2170],
     [0, 1033, 1037, 1056, 1057, 1061, 1063, 1070],
     [1150, 1581, 1595, 1597, 1837, 1851, 1853, 2093],
     [2107, 2109, 1066, 1067, 1119, 1120, 1584, 1593],
     [1601, 1626, 1633, 1658, 1840, 1849, 1857, 1882],
     [1889, 1914, 2096, 2105, 2113, 2138, 2145, 2170],
     [0, 1033, 1037, 1056, 1057, 1061, 1063, 1070],
     [1150, 1581, 1595, 1597, 1603, 1635, 1837, 1851],
     [1853, 2093, 2107, 2109, 2115, 2147, 1066, 1067],
     [1119, 1120, 1584, 1593, 1601, 1626, 1633, 1658],
     [1840, 1849, 1857, 1882, 1889, 1914, 2096, 2105],
     [2113, 2138, 2145, 2170, 0, 1033, 1037, 1056],
     [1057, 1061, 1063, 1070, 1150, 1581, 1595, 1597],
     [1615, 1647, 1837, 1851, 1853, 2093, 2107, 2109],
     [2127, 2159, 1066, 1067, 1119, 1120, 1584, 1593],
     [1601, 1626, 1633, 1658, 1840, 1849, 1857, 1882],
     [1889, 1914, 2096, 2105, 2113, 2138, 2145, 2170],
     [0, 1033, 1037, 1056, 1057, 1061, 1063, 1070],
     [1150, 1581, 1595, 1597, 1614, 1646, 1837, 1851],
     [1853, 2093, 2107, 2109, 2126, 2158, 1066, 1067],
     [1119, 1120, 1584, 1593, 1601, 1626, 1633, 1658],
     [1840, 1849, 1857, 1882, 1889, 1914, 2096, 2105],
     [2113, 2138, 2145, 2170, 0, 1033, 1037, 1056],
     [1057, 1061, 1063, 1070, 1150, 1581, 1595, 1597],
     [1620, 1652, 1837, 1851, 1853, 2093, 2107, 2109],
     [2132, 2164, 1066, 1067, 1119, 1120, 1584, 1593],
     [1601, 1626, 1633, 1658, 1840, 1849, 1857, 1882],
     [1889, 1914, 2096, 2105, 2113, 2138, 2145, 2170],
     [0, 1033, 1037, 1056, 1057, 1061, 1063, 1070],
     [1150, 1581, 1595, 1597, 1605, 1637, 1837, 1851],
     [1853, 2093, 2107, 2109, 2117, 2149, 1066, 1067],
     [1119, 1120, 1584, 1593, 1601, 1626, 1633, 1658],
     [1840, 1849, 1857, 1882, 1889, 1914, 2096, 2105],
     [2113, 2138, 2145, 2170, 0, 1033, 1037, 1056],
     [1057, 1061, 1063, 1070, 1150, 1581, 1595, 1597],
     [1624, 1656, 1837, 1851, 1853, 2093, 2107, 2109],
     [2136, 2168, 1066, 1067, 1119, 1120, 1584, 1593],
     [1601, 1626, 1633, 1658, 1840, 1849, 1857, 1882],
     [1889, 1914, 2096, 2105, 2113, 2138, 2145, 2170],
     [0, 1033, 1037, 1056, 1057, 1061, 1063, 1070],
     [1150, 1581, 1595, 1597, 1620, 1652, 1837, 1851],
     [1853, 2093, 2107, 2109, 2132, 2164, 1066, 1067],
     [1119, 1120, 1584, 1593, 1601, 1626, 1633, 1658],
     [1840, 1849, 1857, 1882, 1889, 1914, 2096, 2105],
     [2113, 2138, 2145, 2170, 0, 1033, 1037, 1056],
     [1057, 1061, 1063, 1070, 1150, 1581, 1595, 1597],
     [1837, 1851, 1853, 2093, 2107, 2109, 1066, 1067],
     [1119, 1120, 1584, 1593, 1601, 1626, 1633, 1658],
     [1840, 1849, 1857, 1882, 1889, 1914, 2096, 2105],
     [2113, 2138, 2145, 2170, 548, 550, 559, 570],
     [605, 1033, 1037, 1056, 1058, 1120, 1569, 1573],
     [1575, 1578, 1579, 1627, 1631, 1662, 1825, 1829],
     [1831, 1883, 1887, 1918, 2081, 2085, 2087, 2090],
     [2091, 2139, 2143, 2174, 552, 553, 1581, 1582],
     [1584, 1593, 1601, 1626, 1633, 1658, 1834, 1835],
     [1837, 1838, 1840, 1849, 1857, 1882, 1889, 1914],
     [2093, 2094, 2096, 2105, 2113, 2138, 2145, 2170],
     [0, 548, 550, 559, 570, 603, 605, 1033],
     [1037, 1056, 1120, 1569, 1573, 1575, 1595, 1631],
     [1662, 1825, 1829, 1831, 1851, 1887, 1918, 2081],
     [2085, 2087, 2107, 2143, 2174, 552, 553, 1578],
     [1579, 1581, 1582, 1584, 1593, 1601, 1626, 1633],
     [1658, 1834, 1835, 1837, 1838, 1840, 1849, 1857],
     [1882, 1889, 1914, 2090, 2091, 2093, 2094, 2096],
     [2105, 2113, 2138, 2145, 2170, 0, 548, 550],
     [559, 570, 603, 605, 1033, 1037, 1056, 1120],
     [1569, 1573, 1575, 1595, 1631, 1662, 1825, 1829],
     [1831, 1851, 1887, 1918, 2081, 2085, 2087, 2107],
     [2143, 2174, 552, 553, 1578, 1579, 1581, 1582],
     [1584, 1593, 1601, 1626, 1633, 1658, 1834, 1835],
     [1837, 1838, 1840, 1849, 1857, 1882, 1889, 1914],
     [2090, 2091, 2093, 2094, 2096, 2105, 2113, 2138],
     [2145, 2170, 0, 548, 550, 559, 570, 603],
     [605, 1033, 1037, 1056, 1120, 1569, 1573, 1575],
     [1581, 1582, 1595, 1631, 1662, 1825, 1829, 1831],
     [1851, 1887, 1918, 2081, 2085, 2087, 2093, 2094],
     [2107, 2143, 2174, 552, 553, 1578, 1579, 1584],
     [1593, 1601, 1626, 1633, 1658, 1834, 1835, 1837],
     [1838, 1840, 1849, 1857, 1882, 1889, 1914, 2090],
     [2091, 2096, 2105, 2113, 2138, 2145, 2170, 0],
     [548, 550, 559, 570, 603, 605, 1033, 1037],
     [1056, 1120, 1569, 1573, 1575, 1581, 1582, 1595]]"

definition sup_trans_keys_53 :: "int list list" where
  "sup_trans_keys_53 =
    [[1631, 1662, 1825, 1829, 1831, 1851, 1887, 1918],
     [2081, 2085, 2087, 2093, 2094, 2107, 2143, 2174],
     [552, 553, 1578, 1579, 1584, 1593, 1601, 1626],
     [1633, 1658, 1834, 1835, 1837, 1838, 1840, 1849],
     [1857, 1882, 1889, 1914, 2090, 2091, 2096, 2105],
     [2113, 2138, 2145, 2170, 0, 548, 550, 559],
     [570, 603, 605, 1033, 1037, 1056, 1120, 1569],
     [1573, 1575, 1595, 1631, 1662, 1825, 1829, 1831],
     [1851, 1887, 1918, 2081, 2085, 2087, 2107, 2143],
     [2174, 552, 553, 1578, 1579, 1581, 1582, 1584],
     [1593, 1601, 1626, 1633, 1658, 1834, 1835, 1837],
     [1838, 1840, 1849, 1857, 1882, 1889, 1914, 2090],
     [2091, 2093, 2094, 2096, 2105, 2113, 2138, 2145],
     [2170, 0, 548, 550, 559, 570, 603, 605],
     [1033, 1037, 1056, 1120, 1569, 1573, 1575, 1581],
     [1582, 1595, 1631, 1662, 1825, 1829, 1831, 1851],
     [1887, 1918, 2081, 2085, 2087, 2093, 2094, 2107],
     [2143, 2174, 552, 553, 1578, 1579, 1584, 1593],
     [1601, 1626, 1633, 1658, 1834, 1835, 1837, 1838],
     [1840, 1849, 1857, 1882, 1889, 1914, 2090, 2091],
     [2096, 2105, 2113, 2138, 2145, 2170, 0, 548],
     [550, 559, 570, 603, 605, 1033, 1037, 1056],
     [1120, 1569, 1573, 1575, 1581, 1582, 1595, 1631],
     [1662, 1825, 1829, 1831, 1851, 1887, 1918, 2081],
     [2085, 2087, 2093, 2094, 2107, 2143, 2174, 552],
     [553, 1578, 1579, 1584, 1593, 1601, 1626, 1633],
     [1658, 1834, 1835, 1837, 1838, 1840, 1849, 1857],
     [1882, 1889, 1914, 2090, 2091, 2096, 2105, 2113],
     [2138, 2145, 2170, 0, 548, 550, 559, 570],
     [603, 605, 1033, 1037, 1056, 1120, 1569, 1573],
     [1575, 1595, 1631, 1662, 1825, 1829, 1831, 1851],
     [1887, 1918, 2081, 2085, 2087, 2107, 2143, 2174],
     [552, 553, 1578, 1579, 1581, 1582, 1584, 1593],
     [1601, 1626, 1633, 1658, 1834, 1835, 1837, 1838],
     [1840, 1849, 1857, 1882, 1889, 1914, 2090, 2091],
     [2093, 2094, 2096, 2105, 2113, 2138, 2145, 2170],
     [1571, 1578, 1827, 1834, 2083, 2090, 1576, 1577],
     [1581, 1582, 1584, 1593, 1601, 1606, 1633, 1638],
     [1832, 1833, 1837, 1838, 1840, 1849, 1857, 1862],
     [1889, 1894, 2088, 2089, 2093, 2094, 2096, 2105],
     [2113, 2118, 2145, 2150, 1576, 1577, 1581, 1582],
     [1584, 1593, 1832, 1833, 1837, 1838, 1840, 1849],
     [2088, 2089, 2093, 2094, 2096, 2105, 0, 1033],
     [1037, 1056, 1595, 1851, 2107, 1576, 1577, 1581],
     [1582, 1584, 1593, 1832, 1833, 1837, 1838, 1840],
     [1849, 2088, 2089, 2093, 2094, 2096, 2105, 0]]"

definition sup_trans_keys :: "int list" where
  "sup_trans_keys =
     concat sup_trans_keys_1 @ concat sup_trans_keys_2 @ concat sup_trans_keys_3 @
     concat sup_trans_keys_4 @ concat sup_trans_keys_5 @ concat sup_trans_keys_6 @
     concat sup_trans_keys_7 @ concat sup_trans_keys_8 @ concat sup_trans_keys_9 @
     concat sup_trans_keys_10 @ concat sup_trans_keys_11 @ concat sup_trans_keys_12 @
     concat sup_trans_keys_13 @ concat sup_trans_keys_14 @ concat sup_trans_keys_15 @
     concat sup_trans_keys_16 @ concat sup_trans_keys_17 @ concat sup_trans_keys_18 @
     concat sup_trans_keys_19 @ concat sup_trans_keys_20 @ concat sup_trans_keys_21 @
     concat sup_trans_keys_22 @ concat sup_trans_keys_23 @ concat sup_trans_keys_24 @
     concat sup_trans_keys_25 @ concat sup_trans_keys_26 @ concat sup_trans_keys_27 @
     concat sup_trans_keys_28 @ concat sup_trans_keys_29 @ concat sup_trans_keys_30 @
     concat sup_trans_keys_31 @ concat sup_trans_keys_32 @ concat sup_trans_keys_33 @
     concat sup_trans_keys_34 @ concat sup_trans_keys_35 @ concat sup_trans_keys_36 @
     concat sup_trans_keys_37 @ concat sup_trans_keys_38 @ concat sup_trans_keys_39 @
     concat sup_trans_keys_40 @ concat sup_trans_keys_41 @ concat sup_trans_keys_42 @
     concat sup_trans_keys_43 @ concat sup_trans_keys_44 @ concat sup_trans_keys_45 @
     concat sup_trans_keys_46 @ concat sup_trans_keys_47 @ concat sup_trans_keys_48 @
     concat sup_trans_keys_49 @ concat sup_trans_keys_50 @ concat sup_trans_keys_51 @
     concat sup_trans_keys_52 @ concat sup_trans_keys_53"

lemma sup_trans_keys_1_length: "int (length (concat sup_trans_keys_1)) = 1200"
  unfolding rows_length sup_trans_keys_1_def by (simp only: row_arith)

lemma sup_trans_keys_2_length: "int (length (concat sup_trans_keys_2)) = 1200"
  unfolding rows_length sup_trans_keys_2_def by (simp only: row_arith)

lemma sup_trans_keys_3_length: "int (length (concat sup_trans_keys_3)) = 1200"
  unfolding rows_length sup_trans_keys_3_def by (simp only: row_arith)

lemma sup_trans_keys_4_length: "int (length (concat sup_trans_keys_4)) = 1200"
  unfolding rows_length sup_trans_keys_4_def by (simp only: row_arith)

lemma sup_trans_keys_5_length: "int (length (concat sup_trans_keys_5)) = 1200"
  unfolding rows_length sup_trans_keys_5_def by (simp only: row_arith)

lemma sup_trans_keys_6_length: "int (length (concat sup_trans_keys_6)) = 1200"
  unfolding rows_length sup_trans_keys_6_def by (simp only: row_arith)

lemma sup_trans_keys_7_length: "int (length (concat sup_trans_keys_7)) = 1200"
  unfolding rows_length sup_trans_keys_7_def by (simp only: row_arith)

lemma sup_trans_keys_8_length: "int (length (concat sup_trans_keys_8)) = 1200"
  unfolding rows_length sup_trans_keys_8_def by (simp only: row_arith)

lemma sup_trans_keys_9_length: "int (length (concat sup_trans_keys_9)) = 1200"
  unfolding rows_length sup_trans_keys_9_def by (simp only: row_arith)

lemma sup_trans_keys_10_length: "int (length (concat sup_trans_keys_10)) = 1200"
  unfolding rows_length sup_trans_keys_10_def by (simp only: row_arith)

lemma sup_trans_keys_11_length: "int (length (concat sup_trans_keys_11)) = 1200"
  unfolding rows_length sup_trans_keys_11_def by (simp only: row_arith)

lemma sup_trans_keys_12_length: "int (length (concat sup_trans_keys_12)) = 1200"
  unfolding rows_length sup_trans_keys_12_def by (simp only: row_arith)

lemma sup_trans_keys_13_length: "int (length (concat sup_trans_keys_13)) = 1200"
  unfolding rows_length sup_trans_keys_13_def by (simp only: row_arith)

lemma sup_trans_keys_14_length: "int (length (concat sup_trans_keys_14)) = 1200"
  unfolding rows_length sup_trans_keys_14_def by (simp only: row_arith)

lemma sup_trans_keys_15_length: "int (length (concat sup_trans_keys_15)) = 1200"
  unfolding rows_length sup_trans_keys_15_def by (simp only: row_arith)

lemma sup_trans_keys_16_length: "int (length (concat sup_trans_keys_16)) = 1200"
  unfolding rows_length sup_trans_keys_16_def by (simp only: row_arith)

lemma sup_trans_keys_17_length: "int (length (concat sup_trans_keys_17)) = 1200"
  unfolding rows_length sup_trans_keys_17_def by (simp only: row_arith)

lemma sup_trans_keys_18_length: "int (length (concat sup_trans_keys_18)) = 1200"
  unfolding rows_length sup_trans_keys_18_def by (simp only: row_arith)

lemma sup_trans_keys_19_length: "int (length (concat sup_trans_keys_19)) = 1200"
  unfolding rows_length sup_trans_keys_19_def by (simp only: row_arith)

lemma sup_trans_keys_20_length: "int (length (concat sup_trans_keys_20)) = 1200"
  unfolding rows_length sup_trans_keys_20_def by (simp only: row_arith)

lemma sup_trans_keys_21_length: "int (length (concat sup_trans_keys_21)) = 1200"
  unfolding rows_length sup_trans_keys_21_def by (simp only: row_arith)

lemma sup_trans_keys_22_length: "int (length (concat sup_trans_keys_22)) = 1200"
  unfolding rows_length sup_trans_keys_22_def by (simp only: row_arith)

lemma sup_trans_keys_23_length: "int (length (concat sup_trans_keys_23)) = 1200"
  unfolding rows_length sup_trans_keys_23_def by (simp only: row_arith)

lemma sup_trans_keys_24_length: "int (length (concat sup_trans_keys_24)) = 1200"
  unfolding rows_length sup_trans_keys_24_def by (simp only: row_arith)

lemma sup_trans_keys_25_length: "int (length (concat sup_trans_keys_25)) = 1200"
  unfolding rows_length sup_trans_keys_25_def by (simp only: row_arith)

lemma sup_trans_keys_26_length: "int (length (concat sup_trans_keys_26)) = 1200"
  unfolding rows_length sup_trans_keys_26_def by (simp only: row_arith)

lemma sup_trans_keys_27_length: "int (length (concat sup_trans_keys_27)) = 1200"
  unfolding rows_length sup_trans_keys_27_def by (simp only: row_arith)

lemma sup_trans_keys_28_length: "int (length (concat sup_trans_keys_28)) = 1200"
  unfolding rows_length sup_trans_keys_28_def by (simp only: row_arith)

lemma sup_trans_keys_29_length: "int (length (concat sup_trans_keys_29)) = 1200"
  unfolding rows_length sup_trans_keys_29_def by (simp only: row_arith)

lemma sup_trans_keys_30_length: "int (length (concat sup_trans_keys_30)) = 1200"
  unfolding rows_length sup_trans_keys_30_def by (simp only: row_arith)

lemma sup_trans_keys_31_length: "int (length (concat sup_trans_keys_31)) = 1200"
  unfolding rows_length sup_trans_keys_31_def by (simp only: row_arith)

lemma sup_trans_keys_32_length: "int (length (concat sup_trans_keys_32)) = 1200"
  unfolding rows_length sup_trans_keys_32_def by (simp only: row_arith)

lemma sup_trans_keys_33_length: "int (length (concat sup_trans_keys_33)) = 1200"
  unfolding rows_length sup_trans_keys_33_def by (simp only: row_arith)

lemma sup_trans_keys_34_length: "int (length (concat sup_trans_keys_34)) = 1200"
  unfolding rows_length sup_trans_keys_34_def by (simp only: row_arith)

lemma sup_trans_keys_35_length: "int (length (concat sup_trans_keys_35)) = 1200"
  unfolding rows_length sup_trans_keys_35_def by (simp only: row_arith)

lemma sup_trans_keys_36_length: "int (length (concat sup_trans_keys_36)) = 1200"
  unfolding rows_length sup_trans_keys_36_def by (simp only: row_arith)

lemma sup_trans_keys_37_length: "int (length (concat sup_trans_keys_37)) = 1200"
  unfolding rows_length sup_trans_keys_37_def by (simp only: row_arith)

lemma sup_trans_keys_38_length: "int (length (concat sup_trans_keys_38)) = 1200"
  unfolding rows_length sup_trans_keys_38_def by (simp only: row_arith)

lemma sup_trans_keys_39_length: "int (length (concat sup_trans_keys_39)) = 1200"
  unfolding rows_length sup_trans_keys_39_def by (simp only: row_arith)

lemma sup_trans_keys_40_length: "int (length (concat sup_trans_keys_40)) = 1200"
  unfolding rows_length sup_trans_keys_40_def by (simp only: row_arith)

lemma sup_trans_keys_41_length: "int (length (concat sup_trans_keys_41)) = 1200"
  unfolding rows_length sup_trans_keys_41_def by (simp only: row_arith)

lemma sup_trans_keys_42_length: "int (length (concat sup_trans_keys_42)) = 1200"
  unfolding rows_length sup_trans_keys_42_def by (simp only: row_arith)

lemma sup_trans_keys_43_length: "int (length (concat sup_trans_keys_43)) = 1200"
  unfolding rows_length sup_trans_keys_43_def by (simp only: row_arith)

lemma sup_trans_keys_44_length: "int (length (concat sup_trans_keys_44)) = 1200"
  unfolding rows_length sup_trans_keys_44_def by (simp only: row_arith)

lemma sup_trans_keys_45_length: "int (length (concat sup_trans_keys_45)) = 1200"
  unfolding rows_length sup_trans_keys_45_def by (simp only: row_arith)

lemma sup_trans_keys_46_length: "int (length (concat sup_trans_keys_46)) = 1200"
  unfolding rows_length sup_trans_keys_46_def by (simp only: row_arith)

lemma sup_trans_keys_47_length: "int (length (concat sup_trans_keys_47)) = 1200"
  unfolding rows_length sup_trans_keys_47_def by (simp only: row_arith)

lemma sup_trans_keys_48_length: "int (length (concat sup_trans_keys_48)) = 1200"
  unfolding rows_length sup_trans_keys_48_def by (simp only: row_arith)

lemma sup_trans_keys_49_length: "int (length (concat sup_trans_keys_49)) = 1200"
  unfolding rows_length sup_trans_keys_49_def by (simp only: row_arith)

lemma sup_trans_keys_50_length: "int (length (concat sup_trans_keys_50)) = 1200"
  unfolding rows_length sup_trans_keys_50_def by (simp only: row_arith)

lemma sup_trans_keys_51_length: "int (length (concat sup_trans_keys_51)) = 1200"
  unfolding rows_length sup_trans_keys_51_def by (simp only: row_arith)

lemma sup_trans_keys_52_length: "int (length (concat sup_trans_keys_52)) = 1200"
  unfolding rows_length sup_trans_keys_52_def by (simp only: row_arith)

lemma sup_trans_keys_53_length: "int (length (concat sup_trans_keys_53)) = 368"
  unfolding rows_length sup_trans_keys_53_def by (simp only: row_arith)

lemma sup_trans_keys_length: "int (length sup_trans_keys) = 62768"
  by (simp only: sup_trans_keys_def length_append of_nat_add row_arith
      sup_trans_keys_1_length sup_trans_keys_2_length sup_trans_keys_3_length
      sup_trans_keys_4_length sup_trans_keys_5_length sup_trans_keys_6_length
      sup_trans_keys_7_length sup_trans_keys_8_length sup_trans_keys_9_length
      sup_trans_keys_10_length sup_trans_keys_11_length sup_trans_keys_12_length
      sup_trans_keys_13_length sup_trans_keys_14_length sup_trans_keys_15_length
      sup_trans_keys_16_length sup_trans_keys_17_length sup_trans_keys_18_length
      sup_trans_keys_19_length sup_trans_keys_20_length sup_trans_keys_21_length
      sup_trans_keys_22_length sup_trans_keys_23_length sup_trans_keys_24_length
      sup_trans_keys_25_length sup_trans_keys_26_length sup_trans_keys_27_length
      sup_trans_keys_28_length sup_trans_keys_29_length sup_trans_keys_30_length
      sup_trans_keys_31_length sup_trans_keys_32_length sup_trans_keys_33_length
      sup_trans_keys_34_length sup_trans_keys_35_length sup_trans_keys_36_length
      sup_trans_keys_37_length sup_trans_keys_38_length sup_trans_keys_39_length
      sup_trans_keys_40_length sup_trans_keys_41_length sup_trans_keys_42_length
      sup_trans_keys_43_length sup_trans_keys_44_length sup_trans_keys_45_length
      sup_trans_keys_46_length sup_trans_keys_47_length sup_trans_keys_48_length
      sup_trans_keys_49_length sup_trans_keys_50_length sup_trans_keys_51_length
      sup_trans_keys_52_length sup_trans_keys_53_length)

end
