(* ===== verification/Sip_Uri_Trans.thy ===== *)
theory Sip_Uri_Trans
  imports Ragel_Cond
begin

text \<open>
  The array \<open>indicies\<close> of ext/sip_parser/sip_uri_parser.c, those for actions and transitions, and which
  transitions end the URI.
\<close>

definition sup_indicies_1 :: "int list list" where
  "sup_indicies_1 =
    [[0, 2, 0, 3, 4, 3, 3, 5],
     [3, 7, 8, 7, 8, 10, 11, 10],
     [11, 13, 14, 13, 14, 3, 3, 3],
     [3, 6, 6, 9, 9, 12, 12, 1],
     [0, 2, 0, 5, 1, 15, 1, 16],
     [16, 1, 16, 16, 5, 1, 18, 19],
     [18, 19, 17, 17, 1, 20, 21, 20],
     [20, 20, 20, 1, 22, 23, 24, 25],
     [26, 27, 26, 28, 22, 22, 22, 22],
     [22, 1, 22, 23, 24, 29, 27, 30],
     [22, 22, 22, 22, 22, 1, 23, 31],
     [32, 23, 33, 23, 23, 23, 23, 23],
     [1, 34, 34, 34, 1, 23, 23, 23],
     [1, 32, 35, 32, 33, 32, 32, 32],
     [32, 32, 32, 1, 36, 36, 36, 1],
     [32, 32, 32, 1, 37, 38, 39, 28],
     [40, 41, 41, 1, 42, 43, 42, 44],
     [44, 44, 1, 42, 42, 44, 44, 44],
     [1, 42, 45, 42, 44, 44, 44, 1],
     [44, 41, 41, 1, 46, 47, 48, 27],
     [26, 46, 41, 41, 41, 1, 46, 46],
     [41, 41, 41, 1, 48, 27, 26, 44],
     [41, 41, 1, 49, 51, 50, 52, 1],
     [53, 54, 1, 55, 56, 1, 57, 1],
     [27, 26, 1, 58, 59, 60, 59, 61],
     [1, 62, 1, 63, 63, 1, 58, 63],
     [64, 63, 61, 1, 65, 1, 66, 66],
     [1, 66, 66, 61, 1, 61, 67, 61],
     [68, 68, 68, 68, 68, 68, 68, 68],
     [68, 1, 69, 1, 70, 70, 1, 70],
     [70, 68, 68, 68, 68, 68, 68, 68],
     [68, 68, 1, 58, 71, 72, 71, 68],
     [68, 68, 61, 73, 68, 68, 68, 68],
     [68, 68, 1, 71, 72, 71, 61, 73],
     [1, 74, 1, 75, 75, 1, 75, 75],
     [61, 73, 1, 73, 76, 73, 77, 78],
     [77, 77, 79, 77, 77, 77, 77, 77],
     [77, 1, 80, 1, 81, 81, 1, 81],
     [81, 77, 78, 77, 77, 79, 77, 77],
     [77, 77, 77, 77, 1, 58, 82, 64],
     [82, 77, 77, 77, 61, 77, 77, 77],
     [77, 77, 77, 1, 82, 64, 82, 61],
     [1, 78, 88, 89, 90, 83, 84, 85],
     [86, 87, 78, 1, 78, 1, 83, 1],
     [84, 1, 85, 1, 86, 1, 91, 1],
     [78, 78, 1, 58, 82, 64, 82, 61],
     [1, 78, 78, 78, 1, 93, 92, 92],
     [92, 1, 95, 94, 94, 94, 1, 95],
     [96, 96, 96, 1, 95, 97, 97, 97],
     [1, 95, 1, 99, 98, 98, 98, 1],
     [101, 100, 100, 100, 1, 101, 102, 102],
     [102, 1, 101, 103, 103, 103, 1, 101],
     [1, 105, 104, 104, 104, 1, 107, 106],
     [106, 106, 1, 107, 108, 108, 108, 1],
     [107, 109, 109, 109, 1, 107, 1, 111],
     [110, 110, 110, 1, 113, 112, 112, 112],
     [1, 113, 114, 114, 114, 1, 113, 115],
     [115, 115, 1, 113, 1, 117, 116, 116],
     [116, 1, 119, 118, 118, 118, 1, 119],
     [120, 120, 120, 1, 119, 121, 121, 121],
     [1, 119, 1, 123, 122, 122, 122, 1],
     [125, 124, 124, 124, 1, 125, 126, 126],
     [126, 1, 125, 127, 127, 127, 1, 125],
     [1, 128, 129, 130, 132, 131, 133, 133],
     [1, 134, 136, 135, 135, 135, 1, 137],
     [138, 139, 140, 1, 141, 1, 142, 143],
     [144, 145, 1, 146, 1, 147, 148, 149],
     [150, 1, 89, 1, 89, 150, 1, 89],
     [147, 1, 151, 89, 150, 147, 1, 89],
     [147, 1, 146, 145, 1, 146, 142, 1],
     [146, 152, 145, 142, 1, 146, 142, 1],
     [141, 140, 1, 141, 137, 1, 141, 153],
     [140, 137, 1, 141, 137, 1, 136, 154],
     [154, 154, 1, 136, 155, 155, 155, 1],
     [136, 1, 147, 156, 156, 156, 1, 89],
     [157, 157, 157, 1, 89, 158, 158, 158],
     [1, 89, 147, 147, 147, 1, 134, 136],
     [159, 135, 135, 1, 134, 136, 160, 154],
     [154, 1, 134, 136, 155, 155, 155, 1],
     [134, 161, 136, 159, 162, 135, 135, 1],
     [134, 136, 160, 154, 154, 154, 1, 134],
     [136, 154, 154, 154, 1, 134, 136, 162],
     [135, 135, 1, 89, 156, 156, 156, 1],
     [136, 135, 135, 135, 1, 163, 164, 165],
     [89, 166, 167, 167, 1, 134, 169, 89],
     [168, 168, 168, 1, 169, 89, 170, 170],
     [170, 1, 169, 89, 171, 171, 171, 1],
     [169, 89, 1, 156, 156, 156, 1, 134],
     [169, 89, 172, 168, 168, 1, 134, 169],
     [89, 173, 170, 170, 1, 134, 169, 89],
     [171, 171, 171, 1, 134, 174, 169, 89],
     [172, 175, 168, 168, 1, 134, 169, 89],
     [173, 170, 170, 170, 1, 134, 169, 89],
     [170, 170, 170, 1, 134, 169, 89, 175],
     [168, 168, 1, 169, 89, 168, 168, 168],
     [1, 176, 177, 178, 89, 179, 180, 180],
     [1, 134, 182, 89, 181, 181, 181, 1],
     [182, 89, 183, 183, 183, 1, 182, 89],
     [184, 184, 184, 1, 182, 89, 1, 163],
     [164, 165, 166, 167, 167, 1, 134, 182],
     [89, 185, 181, 181, 1, 134, 182, 89],
     [186, 183, 183, 1, 134, 182, 89, 184],
     [184, 184, 1, 134, 187, 182, 89, 185],
     [188, 181, 181, 1, 134, 182, 89, 186],
     [183, 183, 183, 1, 134, 182, 89, 183],
     [183, 183, 1, 134, 182, 89, 188, 181],
     [181, 1, 182, 89, 181, 181, 181, 1],
     [189, 190, 191, 89, 192, 193, 193, 1],
     [134, 195, 89, 194, 194, 194, 1, 195],
     [89, 196, 196, 196, 1, 195, 89, 197],
     [197, 197, 1, 195, 89, 1, 176, 177],
     [178, 179, 180, 180, 1, 134, 195, 89],
     [198, 194, 194, 1, 134, 195, 89, 199],
     [196, 196, 1, 134, 195, 89, 197, 197],
     [197, 1, 134, 200, 195, 89, 198, 201],
     [194, 194, 1, 134, 195, 89, 199, 196],
     [196, 196, 1, 134, 195, 89, 196, 196],
     [196, 1, 134, 195, 89, 201, 194, 194],
     [1, 195, 89, 194, 194, 194, 1, 202],
     [203, 204, 89, 205, 206, 206, 1, 134],
     [208, 89, 207, 207, 207, 1, 208, 89],
     [209, 209, 209, 1, 208, 89, 210, 210],
     [210, 1, 208, 89, 1, 189, 190, 191],
     [192, 193, 193, 1, 134, 208, 89, 211],
     [207, 207, 1, 134, 208, 89, 212, 209],
     [209, 1, 134, 208, 89, 210, 210, 210],
     [1, 134, 213, 208, 89, 211, 214, 207],
     [207, 1, 134, 208, 89, 212, 209, 209],
     [209, 1, 134, 208, 89, 209, 209, 209],
     [1, 134, 208, 89, 214, 207, 207, 1],
     [208, 89, 207, 207, 207, 1, 215, 216],
     [217, 89, 218, 219, 219, 1, 134, 221],
     [89, 220, 220, 220, 1, 221, 89, 222],
     [222, 222, 1, 221, 89, 223, 223, 223],
     [1, 221, 89, 1, 202, 203, 204, 205],
     [206, 206, 1, 134, 221, 89, 224, 220],
     [220, 1, 134, 221, 89, 225, 222, 222],
     [1, 134, 221, 89, 223, 223, 223, 1],
     [134, 226, 221, 89, 224, 227, 220, 220],
     [1, 134, 221, 89, 225, 222, 222, 222],
     [1, 134, 221, 89, 222, 222, 222, 1],
     [134, 221, 89, 227, 220, 220, 1, 221],
     [89, 220, 220, 220, 1, 228, 1, 229],
     [230, 231, 89, 232, 233, 233, 1, 134],
     [235, 89, 234, 234, 234, 1, 235, 89],
     [236, 236, 236, 1, 235, 89, 237, 237],
     [237, 1, 235, 89, 1, 215, 216, 217],
     [218, 219, 219, 1, 134, 235, 89, 238],
     [234, 234, 1, 134, 235, 89, 239, 236],
     [236, 1, 134, 235, 89, 237, 237, 237]]"

definition sup_indicies_2 :: "int list list" where
  "sup_indicies_2 =
    [[1, 134, 240, 235, 89, 238, 241, 234],
     [234, 1, 134, 235, 89, 239, 236, 236],
     [236, 1, 134, 235, 89, 236, 236, 236],
     [1, 134, 235, 89, 241, 234, 234, 1],
     [235, 89, 234, 234, 234, 1, 26, 242],
     [27, 26, 26, 26, 26, 26, 1, 243],
     [243, 243, 1, 26, 26, 26, 1, 27],
     [26, 57, 1, 27, 26, 56, 1, 27],
     [26, 52, 1, 27, 26, 54, 1, 244],
     [27, 26, 52, 54, 1, 245, 27, 26],
     [54, 56, 1, 246, 27, 26, 56, 57],
     [1, 27, 26, 57, 1, 247, 248, 249],
     [250, 41, 41, 1, 42, 251, 42, 44],
     [44, 44, 1, 252, 253, 254, 255, 41],
     [41, 1, 42, 256, 42, 44, 44, 44],
     [1, 257, 258, 259, 260, 41, 41, 1],
     [42, 45, 48, 27, 26, 42, 44, 44],
     [44, 1, 42, 45, 48, 27, 26, 42],
     [260, 44, 44, 1, 42, 45, 48, 27],
     [26, 42, 257, 44, 44, 1, 42, 45],
     [261, 48, 27, 26, 42, 260, 257, 44],
     [44, 1, 42, 45, 48, 27, 26, 42],
     [257, 44, 44, 44, 1, 42, 256, 42],
     [255, 44, 44, 1, 42, 256, 42, 252],
     [44, 44, 1, 42, 256, 262, 42, 255],
     [252, 44, 44, 1, 42, 256, 42, 252],
     [44, 44, 44, 1, 42, 251, 42, 250],
     [44, 44, 1, 42, 251, 42, 247, 44],
     [44, 1, 42, 251, 263, 42, 250, 247],
     [44, 44, 1, 42, 251, 42, 247, 44],
     [44, 44, 1, 42, 43, 42, 40, 44],
     [44, 1, 42, 43, 42, 37, 44, 44],
     [1, 42, 43, 264, 42, 40, 37, 44],
     [44, 1, 42, 43, 42, 37, 44, 44],
     [44, 1, 266, 265, 265, 265, 1, 268],
     [267, 267, 267, 1, 268, 269, 269, 269],
     [1, 268, 270, 270, 270, 1, 268, 1],
     [272, 271, 271, 271, 1, 274, 273, 273],
     [273, 1, 274, 275, 275, 275, 1, 274],
     [276, 276, 276, 1, 274, 1, 278, 277],
     [277, 277, 1, 280, 279, 279, 279, 1],
     [280, 281, 281, 281, 1, 280, 282, 282],
     [282, 1, 280, 1, 284, 283, 283, 283],
     [1, 286, 285, 285, 285, 1, 286, 287],
     [287, 287, 1, 286, 288, 288, 288, 1],
     [286, 1, 290, 289, 289, 289, 1, 292],
     [291, 291, 291, 1, 292, 293, 293, 293],
     [1, 292, 294, 294, 294, 1, 292, 1],
     [296, 295, 295, 295, 1, 298, 297, 297],
     [297, 1, 298, 299, 299, 299, 1, 298],
     [300, 300, 300, 1, 298, 1, 301, 302],
     [303, 305, 304, 306, 306, 1, 307, 309],
     [308, 308, 308, 1, 310, 311, 312, 313],
     [1, 314, 1, 315, 316, 317, 318, 1],
     [319, 1, 320, 321, 322, 323, 1, 324],
     [1, 48, 27, 26, 1, 324, 323, 1],
     [324, 320, 1, 325, 324, 323, 320, 1],
     [324, 320, 1, 319, 318, 1, 319, 315],
     [1, 319, 326, 318, 315, 1, 319, 315],
     [1, 314, 313, 1, 314, 310, 1, 314],
     [327, 313, 310, 1, 314, 310, 1, 309],
     [328, 328, 328, 1, 309, 329, 329, 329],
     [1, 309, 1, 320, 330, 330, 330, 1],
     [324, 331, 331, 331, 1, 324, 332, 332],
     [332, 1, 324, 320, 320, 320, 1, 307],
     [309, 333, 308, 308, 1, 307, 309, 334],
     [328, 328, 1, 307, 309, 329, 329, 329],
     [1, 307, 335, 309, 333, 336, 308, 308],
     [1, 307, 309, 334, 328, 328, 328, 1],
     [307, 309, 328, 328, 328, 1, 307, 309],
     [336, 308, 308, 1, 324, 330, 330, 330],
     [1, 309, 308, 308, 308, 1, 337, 338],
     [339, 324, 340, 341, 341, 1, 307, 343],
     [324, 342, 342, 342, 1, 343, 324, 344],
     [344, 344, 1, 343, 324, 345, 345, 345],
     [1, 343, 324, 1, 330, 330, 330, 1],
     [307, 343, 324, 346, 342, 342, 1, 307],
     [343, 324, 347, 344, 344, 1, 307, 343],
     [324, 345, 345, 345, 1, 307, 348, 343],
     [324, 346, 349, 342, 342, 1, 307, 343],
     [324, 347, 344, 344, 344, 1, 307, 343],
     [324, 344, 344, 344, 1, 307, 343, 324],
     [349, 342, 342, 1, 343, 324, 342, 342],
     [342, 1, 350, 351, 352, 324, 353, 354],
     [354, 1, 307, 356, 324, 355, 355, 355],
     [1, 356, 324, 357, 357, 357, 1, 356],
     [324, 358, 358, 358, 1, 356, 324, 1],
     [337, 338, 339, 340, 341, 341, 1, 307],
     [356, 324, 359, 355, 355, 1, 307, 356],
     [324, 360, 357, 357, 1, 307, 356, 324],
     [358, 358, 358, 1, 307, 361, 356, 324],
     [359, 362, 355, 355, 1, 307, 356, 324],
     [360, 357, 357, 357, 1, 307, 356, 324],
     [357, 357, 357, 1, 307, 356, 324, 362],
     [355, 355, 1, 356, 324, 355, 355, 355],
     [1, 363, 364, 365, 324, 366, 367, 367],
     [1, 307, 369, 324, 368, 368, 368, 1],
     [369, 324, 370, 370, 370, 1, 369, 324],
     [371, 371, 371, 1, 369, 324, 1, 350],
     [351, 352, 353, 354, 354, 1, 307, 369],
     [324, 372, 368, 368, 1, 307, 369, 324],
     [373, 370, 370, 1, 307, 369, 324, 371],
     [371, 371, 1, 307, 374, 369, 324, 372],
     [375, 368, 368, 1, 307, 369, 324, 373],
     [370, 370, 370, 1, 307, 369, 324, 370],
     [370, 370, 1, 307, 369, 324, 375, 368],
     [368, 1, 369, 324, 368, 368, 368, 1],
     [376, 377, 378, 324, 379, 380, 380, 1],
     [307, 382, 324, 381, 381, 381, 1, 382],
     [324, 383, 383, 383, 1, 382, 324, 384],
     [384, 384, 1, 382, 324, 1, 363, 364],
     [365, 366, 367, 367, 1, 307, 382, 324],
     [385, 381, 381, 1, 307, 382, 324, 386],
     [383, 383, 1, 307, 382, 324, 384, 384],
     [384, 1, 307, 387, 382, 324, 385, 388],
     [381, 381, 1, 307, 382, 324, 386, 383],
     [383, 383, 1, 307, 382, 324, 383, 383],
     [383, 1, 307, 382, 324, 388, 381, 381],
     [1, 382, 324, 381, 381, 381, 1, 389],
     [390, 391, 324, 392, 393, 393, 1, 307],
     [395, 324, 394, 394, 394, 1, 395, 324],
     [396, 396, 396, 1, 395, 324, 397, 397],
     [397, 1, 395, 324, 1, 376, 377, 378],
     [379, 380, 380, 1, 307, 395, 324, 398],
     [394, 394, 1, 307, 395, 324, 399, 396],
     [396, 1, 307, 395, 324, 397, 397, 397],
     [1, 307, 400, 395, 324, 398, 401, 394],
     [394, 1, 307, 395, 324, 399, 396, 396],
     [396, 1, 307, 395, 324, 396, 396, 396],
     [1, 307, 395, 324, 401, 394, 394, 1],
     [395, 324, 394, 394, 394, 1, 402, 1],
     [403, 404, 405, 324, 406, 407, 407, 1],
     [307, 409, 324, 408, 408, 408, 1, 409],
     [324, 410, 410, 410, 1, 409, 324, 411],
     [411, 411, 1, 409, 324, 1, 389, 390],
     [391, 392, 393, 393, 1, 307, 409, 324],
     [412, 408, 408, 1, 307, 409, 324, 413],
     [410, 410, 1, 307, 409, 324, 411, 411],
     [411, 1, 307, 414, 409, 324, 412, 415],
     [408, 408, 1, 307, 409, 324, 413, 410],
     [410, 410, 1, 307, 409, 324, 410, 410],
     [410, 1, 307, 409, 324, 415, 408, 408],
     [1, 409, 324, 408, 408, 408, 1, 416],
     [416, 416, 1, 22, 22, 22, 1, 29],
     [417, 26, 27, 26, 30, 29, 29, 29],
     [26, 29, 29, 1, 418, 418, 418, 1],
     [29, 29, 29, 1, 26, 242, 27, 28],
     [26, 26, 26, 26, 26, 1, 22, 23],
     [24, 419, 29, 27, 30, 22, 22, 22],
     [22, 22, 1, 420, 421, 422, 29, 27]]"

definition sup_indicies_3 :: "int list list" where
  "sup_indicies_3 =
    [[30, 423, 420, 420, 420, 420, 420, 1],
     [420, 421, 422, 424, 27, 425, 420, 420],
     [420, 420, 420, 1, 421, 426, 427, 421],
     [428, 421, 421, 421, 421, 421, 1, 429],
     [429, 429, 1, 421, 421, 421, 1, 427],
     [430, 427, 428, 427, 427, 427, 427, 427],
     [427, 1, 431, 431, 431, 1, 427, 427],
     [427, 1, 432, 433, 434, 423, 435, 436],
     [436, 1, 437, 438, 437, 439, 439, 439],
     [1, 437, 437, 439, 439, 439, 1, 437],
     [440, 437, 439, 439, 439, 1, 439, 436],
     [436, 1, 441, 442, 26, 443, 27, 26],
     [441, 436, 436, 436, 1, 441, 441, 436],
     [436, 436, 1, 26, 443, 27, 26, 439],
     [436, 436, 1, 444, 446, 445, 447, 1],
     [448, 449, 1, 450, 451, 1, 452, 1],
     [26, 27, 26, 1, 26, 27, 26, 452],
     [1, 26, 27, 26, 451, 1, 26, 27],
     [26, 447, 1, 26, 27, 26, 449, 1],
     [26, 453, 27, 26, 447, 449, 1, 26],
     [454, 27, 26, 449, 451, 1, 26, 455],
     [27, 26, 451, 452, 1, 26, 27, 26],
     [452, 1, 456, 457, 458, 459, 436, 436],
     [1, 437, 460, 437, 439, 439, 439, 1],
     [461, 462, 463, 464, 436, 436, 1, 437],
     [465, 437, 439, 439, 439, 1, 466, 467],
     [468, 469, 436, 436, 1, 437, 440, 26],
     [443, 27, 26, 437, 439, 439, 439, 1],
     [437, 440, 26, 443, 27, 26, 437, 469],
     [439, 439, 1, 437, 440, 26, 443, 27],
     [26, 437, 466, 439, 439, 1, 437, 440],
     [26, 470, 443, 27, 26, 437, 469, 466],
     [439, 439, 1, 437, 440, 26, 443, 27],
     [26, 437, 466, 439, 439, 439, 1, 437],
     [465, 437, 464, 439, 439, 1, 437, 465],
     [437, 461, 439, 439, 1, 437, 465, 471],
     [437, 464, 461, 439, 439, 1, 437, 465],
     [437, 461, 439, 439, 439, 1, 437, 460],
     [437, 459, 439, 439, 1, 437, 460, 437],
     [456, 439, 439, 1, 437, 460, 472, 437],
     [459, 456, 439, 439, 1, 437, 460, 437],
     [456, 439, 439, 439, 1, 437, 438, 437],
     [435, 439, 439, 1, 437, 438, 437, 432],
     [439, 439, 1, 437, 438, 473, 437, 435],
     [432, 439, 439, 1, 437, 438, 437, 432],
     [439, 439, 439, 1, 475, 474, 474, 474],
     [1, 477, 476, 476, 476, 1, 477, 478],
     [478, 478, 1, 477, 479, 479, 479, 1],
     [477, 1, 481, 480, 480, 480, 1, 483],
     [482, 482, 482, 1, 483, 484, 484, 484],
     [1, 483, 485, 485, 485, 1, 483, 1],
     [487, 486, 486, 486, 1, 489, 488, 488],
     [488, 1, 489, 490, 490, 490, 1, 489],
     [491, 491, 491, 1, 489, 1, 493, 492],
     [492, 492, 1, 495, 494, 494, 494, 1],
     [495, 496, 496, 496, 1, 495, 497, 497],
     [497, 1, 495, 1, 499, 498, 498, 498],
     [1, 501, 500, 500, 500, 1, 501, 502],
     [502, 502, 1, 501, 503, 503, 503, 1],
     [501, 1, 505, 504, 504, 504, 1, 507],
     [506, 506, 506, 1, 507, 508, 508, 508],
     [1, 507, 509, 509, 509, 1, 507, 1],
     [510, 511, 512, 514, 513, 515, 515, 1],
     [516, 518, 517, 517, 517, 1, 519, 520],
     [521, 522, 1, 523, 1, 524, 525, 526],
     [527, 1, 528, 1, 529, 530, 531, 532],
     [1, 533, 1, 26, 443, 27, 26, 1],
     [533, 532, 1, 533, 529, 1, 534, 533],
     [532, 529, 1, 533, 529, 1, 528, 527],
     [1, 528, 524, 1, 528, 535, 527, 524],
     [1, 528, 524, 1, 523, 522, 1, 523],
     [519, 1, 523, 536, 522, 519, 1, 523],
     [519, 1, 518, 537, 537, 537, 1, 518],
     [538, 538, 538, 1, 518, 1, 529, 539],
     [539, 539, 1, 533, 540, 540, 540, 1],
     [533, 541, 541, 541, 1, 533, 529, 529],
     [529, 1, 516, 518, 542, 517, 517, 1],
     [516, 518, 543, 537, 537, 1, 516, 518],
     [538, 538, 538, 1, 516, 544, 518, 542],
     [545, 517, 517, 1, 516, 518, 543, 537],
     [537, 537, 1, 516, 518, 537, 537, 537],
     [1, 516, 518, 545, 517, 517, 1, 533],
     [539, 539, 539, 1, 518, 517, 517, 517],
     [1, 546, 547, 548, 533, 549, 550, 550],
     [1, 516, 552, 533, 551, 551, 551, 1],
     [552, 533, 553, 553, 553, 1, 552, 533],
     [554, 554, 554, 1, 552, 533, 1, 539],
     [539, 539, 1, 516, 552, 533, 555, 551],
     [551, 1, 516, 552, 533, 556, 553, 553],
     [1, 516, 552, 533, 554, 554, 554, 1],
     [516, 557, 552, 533, 555, 558, 551, 551],
     [1, 516, 552, 533, 556, 553, 553, 553],
     [1, 516, 552, 533, 553, 553, 553, 1],
     [516, 552, 533, 558, 551, 551, 1, 552],
     [533, 551, 551, 551, 1, 559, 560, 561],
     [533, 562, 563, 563, 1, 516, 565, 533],
     [564, 564, 564, 1, 565, 533, 566, 566],
     [566, 1, 565, 533, 567, 567, 567, 1],
     [565, 533, 1, 546, 547, 548, 549, 550],
     [550, 1, 516, 565, 533, 568, 564, 564],
     [1, 516, 565, 533, 569, 566, 566, 1],
     [516, 565, 533, 567, 567, 567, 1, 516],
     [570, 565, 533, 568, 571, 564, 564, 1],
     [516, 565, 533, 569, 566, 566, 566, 1],
     [516, 565, 533, 566, 566, 566, 1, 516],
     [565, 533, 571, 564, 564, 1, 565, 533],
     [564, 564, 564, 1, 572, 573, 574, 533],
     [575, 576, 576, 1, 516, 578, 533, 577],
     [577, 577, 1, 578, 533, 579, 579, 579],
     [1, 578, 533, 580, 580, 580, 1, 578],
     [533, 1, 559, 560, 561, 562, 563, 563],
     [1, 516, 578, 533, 581, 577, 577, 1],
     [516, 578, 533, 582, 579, 579, 1, 516],
     [578, 533, 580, 580, 580, 1, 516, 583],
     [578, 533, 581, 584, 577, 577, 1, 516],
     [578, 533, 582, 579, 579, 579, 1, 516],
     [578, 533, 579, 579, 579, 1, 516, 578],
     [533, 584, 577, 577, 1, 578, 533, 577],
     [577, 577, 1, 585, 586, 587, 533, 588],
     [589, 589, 1, 516, 591, 533, 590, 590],
     [590, 1, 591, 533, 592, 592, 592, 1],
     [591, 533, 593, 593, 593, 1, 591, 533],
     [1, 572, 573, 574, 575, 576, 576, 1],
     [516, 591, 533, 594, 590, 590, 1, 516],
     [591, 533, 595, 592, 592, 1, 516, 591],
     [533, 593, 593, 593, 1, 516, 596, 591],
     [533, 594, 597, 590, 590, 1, 516, 591],
     [533, 595, 592, 592, 592, 1, 516, 591],
     [533, 592, 592, 592, 1, 516, 591, 533],
     [597, 590, 590, 1, 591, 533, 590, 590],
     [590, 1, 598, 599, 600, 533, 601, 602],
     [602, 1, 516, 604, 533, 603, 603, 603],
     [1, 604, 533, 605, 605, 605, 1, 604],
     [533, 606, 606, 606, 1, 604, 533, 1],
     [585, 586, 587, 588, 589, 589, 1, 516],
     [604, 533, 607, 603, 603, 1, 516, 604],
     [533, 608, 605, 605, 1, 516, 604, 533],
     [606, 606, 606, 1, 516, 609, 604, 533],
     [607, 610, 603, 603, 1, 516, 604, 533],
     [608, 605, 605, 605, 1, 516, 604, 533],
     [605, 605, 605, 1, 516, 604, 533, 610],
     [603, 603, 1, 604, 533, 603, 603, 603],
     [1, 611, 1, 612, 613, 614, 533, 615],
     [616, 616, 1, 516, 618, 533, 617, 617],
     [617, 1, 618, 533, 619, 619, 619, 1],
     [618, 533, 620, 620, 620, 1, 618, 533],
     [1, 598, 599, 600, 601, 602, 602, 1],
     [516, 618, 533, 621, 617, 617, 1, 516],
     [618, 533, 622, 619, 619, 1, 516, 618],
     [533, 620, 620, 620, 1, 516, 623, 618]]"

definition sup_indicies_4 :: "int list list" where
  "sup_indicies_4 =
    [[533, 621, 624, 617, 617, 1, 516, 618],
     [533, 622, 619, 619, 619, 1, 516, 618],
     [533, 619, 619, 619, 1, 516, 618, 533],
     [624, 617, 617, 1, 618, 533, 617, 617],
     [617, 1, 625, 625, 625, 1, 420, 420],
     [420, 1, 424, 626, 26, 27, 26, 425],
     [424, 424, 424, 26, 424, 424, 1, 627],
     [627, 627, 1, 424, 424, 424, 1, 26],
     [242, 27, 423, 26, 26, 26, 26, 26],
     [1, 20, 21, 628, 628, 20, 20, 20],
     [20, 1, 20, 21, 629, 629, 20, 20],
     [20, 20, 1, 20, 630, 631, 631, 20],
     [20, 20, 20, 1, 632, 633, 634, 635],
     [636, 632, 632, 632, 639, 632, 632, 632],
     [637, 638, 638, 1, 640, 641, 642, 640],
     [643, 640, 640, 640, 640, 640, 1, 644],
     [644, 644, 1, 640, 640, 640, 1, 642],
     [645, 642, 643, 642, 642, 642, 642, 642],
     [642, 1, 646, 646, 646, 1, 642, 642],
     [642, 1, 647, 648, 649, 639, 650, 651],
     [651, 1, 652, 653, 652, 654, 654, 654],
     [1, 652, 652, 654, 654, 654, 1, 652],
     [655, 652, 654, 654, 654, 1, 654, 656],
     [656, 1, 657, 658, 659, 660, 661, 662],
     [657, 656, 656, 656, 1, 657, 657, 656],
     [656, 656, 1, 659, 660, 661, 662, 654],
     [656, 656, 1, 663, 665, 664, 666, 1],
     [667, 668, 1, 669, 670, 1, 671, 1],
     [672, 673, 674, 1, 675, 676, 677, 678],
     [679, 675, 675, 677, 678, 679, 675, 675],
     [675, 675, 675, 1, 680, 681, 682, 683],
     [684, 685, 680, 680, 680, 680, 680, 680],
     [680, 1, 686, 686, 686, 1, 680, 680],
     [680, 1, 687, 688, 682, 689, 684, 685],
     [687, 687, 687, 687, 687, 687, 687, 1],
     [690, 691, 692, 693, 694, 690, 690, 690],
     [690, 690, 690, 690, 1, 695, 695, 695],
     [1, 690, 690, 690, 1, 696, 696, 697],
     [696, 696, 696, 696, 696, 696, 696, 696],
     [1, 696, 696, 697, 698, 696, 696, 696],
     [696, 696, 696, 696, 696, 1, 699, 699],
     [699, 1, 696, 696, 696, 1, 698, 700],
     [701, 702, 698, 698, 698, 698, 698, 698],
     [698, 698, 1, 703, 703, 703, 1, 698],
     [698, 698, 1, 687, 688, 687, 687, 687],
     [687, 687, 687, 687, 1, 680, 681, 682],
     [683, 684, 685, 704, 680, 680, 704, 680],
     [680, 680, 680, 680, 1, 680, 681, 705],
     [706, 707, 708, 680, 680, 680, 680, 680],
     [680, 680, 1, 709, 710, 709, 687, 687],
     [682, 689, 684, 685, 687, 687, 711, 709],
     [687, 709, 709, 709, 709, 1, 712, 713],
     [712, 690, 690, 692, 693, 694, 690, 690],
     [711, 712, 690, 712, 712, 712, 712, 1],
     [711, 711, 711, 715, 27, 716, 711, 711],
     [711, 714, 714, 711, 711, 714, 711, 1],
     [711, 711, 711, 715, 27, 716, 711, 711],
     [711, 711, 711, 711, 1, 711, 711, 711],
     [715, 27, 716, 711, 711, 711, 712, 712],
     [711, 711, 712, 711, 1, 680, 681, 682],
     [683, 684, 685, 717, 718, 680, 680, 717],
     [718, 680, 680, 680, 680, 680, 1, 680],
     [681, 719, 720, 721, 722, 680, 680, 680],
     [680, 680, 680, 680, 1, 680, 681, 682],
     [683, 684, 685, 723, 680, 680, 723, 680],
     [680, 680, 680, 680, 1, 680, 681, 682],
     [683, 684, 685, 724, 680, 680, 724, 680],
     [680, 680, 680, 680, 1, 680, 681, 682],
     [725, 684, 685, 680, 680, 680, 680, 680],
     [680, 680, 1, 726, 727, 726, 687, 687],
     [682, 689, 684, 685, 687, 687, 728, 726],
     [687, 726, 726, 726, 726, 1, 729, 730],
     [729, 690, 690, 731, 732, 733, 690, 690],
     [734, 729, 690, 729, 729, 729, 729, 1],
     [734, 734, 734, 736, 737, 738, 734, 734],
     [734, 735, 735, 734, 734, 735, 734, 1],
     [734, 734, 734, 736, 737, 738, 734, 734],
     [734, 734, 734, 734, 1, 734, 734, 734],
     [736, 737, 738, 734, 734, 734, 729, 729],
     [734, 734, 729, 734, 1, 680, 681, 682],
     [683, 684, 685, 739, 680, 680, 739, 680],
     [680, 680, 680, 680, 1, 680, 681, 682],
     [683, 684, 685, 740, 680, 680, 740, 680],
     [680, 680, 680, 680, 1, 680, 681, 682],
     [683, 684, 685, 741, 680, 680, 741, 680],
     [680, 680, 680, 680, 1, 680, 681, 682],
     [683, 684, 685, 742, 680, 680, 742, 680],
     [680, 680, 680, 680, 1, 680, 681, 682],
     [683, 684, 685, 743, 680, 680, 743, 680],
     [680, 680, 680, 680, 1, 680, 681, 682],
     [683, 684, 685, 744, 680, 680, 744, 680],
     [680, 680, 680, 680, 1, 680, 681, 682],
     [683, 684, 685, 745, 680, 680, 745, 680],
     [680, 680, 680, 680, 1, 680, 681, 682],
     [683, 684, 685, 746, 680, 680, 746, 680],
     [680, 680, 680, 680, 1, 680, 681, 682],
     [747, 684, 685, 680, 680, 680, 680, 680],
     [680, 680, 1, 748, 749, 748, 687, 687],
     [682, 689, 684, 685, 750, 751, 752, 753],
     [687, 687, 754, 750, 751, 752, 753, 748],
     [687, 748, 748, 748, 748, 1, 755, 756],
     [755, 690, 690, 757, 758, 759, 690, 690],
     [760, 755, 690, 755, 755, 755, 755, 1],
     [760, 760, 760, 762, 763, 764, 760, 760],
     [760, 761, 761, 760, 760, 761, 760, 1],
     [760, 760, 760, 762, 763, 764, 760, 760],
     [760, 760, 760, 760, 1, 760, 760, 760],
     [762, 763, 764, 760, 760, 760, 755, 755],
     [760, 760, 755, 760, 1, 755, 756, 755],
     [690, 690, 757, 758, 759, 765, 690, 690],
     [760, 765, 755, 690, 755, 755, 755, 755],
     [1, 755, 756, 755, 690, 690, 757, 758],
     [759, 766, 690, 690, 760, 766, 755, 690],
     [755, 755, 755, 755, 1, 755, 756, 755],
     [690, 690, 757, 758, 759, 767, 690, 690],
     [760, 767, 755, 690, 755, 755, 755, 755],
     [1, 755, 756, 755, 690, 690, 768, 769],
     [770, 690, 690, 760, 755, 690, 755, 755],
     [755, 755, 1, 755, 756, 755, 690, 690],
     [757, 758, 759, 771, 772, 690, 690, 760],
     [771, 772, 755, 690, 755, 755, 755, 755],
     [1, 755, 756, 755, 690, 690, 757, 758],
     [759, 773, 690, 690, 760, 773, 755, 690],
     [755, 755, 755, 755, 1, 755, 756, 755],
     [690, 690, 774, 775, 776, 690, 690, 760],
     [755, 690, 755, 755, 755, 755, 1, 755],
     [756, 755, 690, 690, 757, 758, 759, 777],
     [690, 690, 760, 777, 755, 690, 755, 755],
     [755, 755, 1, 755, 756, 755, 690, 690],
     [778, 779, 780, 690, 690, 760, 755, 690],
     [755, 755, 755, 755, 1, 755, 756, 755],
     [690, 690, 757, 758, 759, 781, 690, 690],
     [760, 781, 755, 690, 755, 755, 755, 755],
     [1, 755, 756, 755, 690, 690, 757, 758],
     [759, 782, 690, 690, 760, 782, 755, 690],
     [755, 755, 755, 755, 1, 755, 756, 755],
     [690, 690, 783, 784, 785, 690, 690, 760],
     [755, 690, 755, 755, 755, 755, 1, 755],
     [756, 755, 690, 690, 757, 758, 759, 786],
     [690, 690, 760, 786, 755, 690, 755, 755],
     [755, 755, 1, 755, 756, 755, 690, 690],
     [787, 788, 789, 790, 690, 690, 760, 790],
     [755, 690, 755, 755, 755, 755, 1, 755],
     [756, 755, 690, 690, 791, 792, 793, 690],
     [690, 760, 755, 690, 755, 755, 755, 755],
     [1, 672, 673, 674, 671, 1, 672, 673],
     [674, 670, 1, 672, 673, 674, 794, 1],
     [672, 673, 674, 668, 1, 795, 672, 673],
     [674, 794, 668, 1, 796, 672, 673, 674],
     [668, 670, 1, 797, 672, 673, 674, 670]]"

definition sup_indicies_5 :: "int list list" where
  "sup_indicies_5 =
    [[671, 1, 672, 673, 674, 671, 1, 798],
     [799, 800, 801, 656, 656, 1, 652, 802],
     [652, 654, 654, 654, 1, 803, 804, 805],
     [806, 656, 656, 1, 652, 807, 652, 654],
     [654, 654, 1, 808, 809, 810, 811, 656],
     [656, 1, 652, 655, 812, 813, 814, 815],
     [652, 654, 654, 654, 1, 652, 655, 812],
     [813, 814, 815, 652, 811, 654, 654, 1],
     [652, 655, 812, 813, 814, 815, 652, 808],
     [654, 654, 1, 652, 655, 816, 812, 813],
     [814, 815, 652, 811, 808, 654, 654, 1],
     [652, 655, 812, 813, 814, 815, 652, 808],
     [654, 654, 654, 1, 652, 807, 652, 806],
     [654, 654, 1, 652, 807, 652, 803, 654],
     [654, 1, 652, 807, 817, 652, 806, 803],
     [654, 654, 1, 652, 807, 652, 803, 654],
     [654, 654, 1, 652, 802, 652, 801, 654],
     [654, 1, 652, 802, 652, 798, 654, 654],
     [1, 652, 802, 818, 652, 801, 798, 654],
     [654, 1, 652, 802, 652, 798, 654, 654],
     [654, 1, 652, 653, 652, 819, 654, 654],
     [1, 652, 653, 652, 820, 654, 654, 1],
     [652, 653, 821, 652, 819, 820, 654, 654],
     [1, 652, 653, 652, 820, 654, 654, 654],
     [1, 823, 822, 822, 822, 1, 825, 824],
     [824, 824, 1, 825, 826, 826, 826, 1],
     [825, 827, 827, 827, 1, 825, 1, 829],
     [828, 828, 828, 1, 831, 830, 830, 830],
     [1, 831, 832, 832, 832, 1, 831, 833],
     [833, 833, 1, 831, 1, 835, 834, 834],
     [834, 1, 837, 836, 836, 836, 1, 837],
     [838, 838, 838, 1, 837, 839, 839, 839],
     [1, 837, 1, 841, 840, 840, 840, 1],
     [843, 842, 842, 842, 1, 843, 844, 844],
     [844, 1, 843, 845, 845, 845, 1, 843],
     [1, 847, 846, 846, 846, 1, 849, 848],
     [848, 848, 1, 849, 850, 850, 850, 1],
     [849, 851, 851, 851, 1, 849, 1, 853],
     [852, 852, 852, 1, 855, 854, 854, 854],
     [1, 855, 856, 856, 856, 1, 855, 857],
     [857, 857, 1, 855, 1, 858, 859, 860],
     [862, 861, 863, 863, 1, 864, 866, 865],
     [865, 865, 1, 867, 868, 869, 870, 1],
     [871, 1, 872, 873, 874, 875, 1, 876],
     [1, 877, 878, 879, 880, 1, 881, 1],
     [882, 883, 884, 885, 1, 881, 880, 1],
     [881, 877, 1, 886, 881, 880, 877, 1],
     [881, 877, 1, 876, 875, 1, 876, 872],
     [1, 876, 887, 875, 872, 1, 876, 872],
     [1, 871, 870, 1, 871, 867, 1, 871],
     [888, 870, 867, 1, 871, 867, 1, 866],
     [889, 889, 889, 1, 866, 890, 890, 890],
     [1, 866, 1, 877, 891, 891, 891, 1],
     [881, 892, 892, 892, 1, 881, 893, 893],
     [893, 1, 881, 877, 877, 877, 1, 864],
     [866, 894, 865, 865, 1, 864, 866, 895],
     [889, 889, 1, 864, 866, 890, 890, 890],
     [1, 864, 896, 866, 894, 897, 865, 865],
     [1, 864, 866, 895, 889, 889, 889, 1],
     [864, 866, 889, 889, 889, 1, 864, 866],
     [897, 865, 865, 1, 881, 891, 891, 891],
     [1, 866, 865, 865, 865, 1, 898, 899],
     [900, 881, 901, 902, 902, 1, 864, 904],
     [881, 903, 903, 903, 1, 904, 881, 905],
     [905, 905, 1, 904, 881, 906, 906, 906],
     [1, 904, 881, 1, 891, 891, 891, 1],
     [864, 904, 881, 907, 903, 903, 1, 864],
     [904, 881, 908, 905, 905, 1, 864, 904],
     [881, 906, 906, 906, 1, 864, 909, 904],
     [881, 907, 910, 903, 903, 1, 864, 904],
     [881, 908, 905, 905, 905, 1, 864, 904],
     [881, 905, 905, 905, 1, 864, 904, 881],
     [910, 903, 903, 1, 904, 881, 903, 903],
     [903, 1, 911, 912, 913, 881, 914, 915],
     [915, 1, 864, 917, 881, 916, 916, 916],
     [1, 917, 881, 918, 918, 918, 1, 917],
     [881, 919, 919, 919, 1, 917, 881, 1],
     [898, 899, 900, 901, 902, 902, 1, 864],
     [917, 881, 920, 916, 916, 1, 864, 917],
     [881, 921, 918, 918, 1, 864, 917, 881],
     [919, 919, 919, 1, 864, 922, 917, 881],
     [920, 923, 916, 916, 1, 864, 917, 881],
     [921, 918, 918, 918, 1, 864, 917, 881],
     [918, 918, 918, 1, 864, 917, 881, 923],
     [916, 916, 1, 917, 881, 916, 916, 916],
     [1, 924, 925, 926, 881, 927, 928, 928],
     [1, 864, 930, 881, 929, 929, 929, 1],
     [930, 881, 931, 931, 931, 1, 930, 881],
     [932, 932, 932, 1, 930, 881, 1, 911],
     [912, 913, 914, 915, 915, 1, 864, 930],
     [881, 933, 929, 929, 1, 864, 930, 881],
     [934, 931, 931, 1, 864, 930, 881, 932],
     [932, 932, 1, 864, 935, 930, 881, 933],
     [936, 929, 929, 1, 864, 930, 881, 934],
     [931, 931, 931, 1, 864, 930, 881, 931],
     [931, 931, 1, 864, 930, 881, 936, 929],
     [929, 1, 930, 881, 929, 929, 929, 1],
     [937, 938, 939, 881, 940, 941, 941, 1],
     [864, 943, 881, 942, 942, 942, 1, 943],
     [881, 944, 944, 944, 1, 943, 881, 945],
     [945, 945, 1, 943, 881, 1, 924, 925],
     [926, 927, 928, 928, 1, 864, 943, 881],
     [946, 942, 942, 1, 864, 943, 881, 947],
     [944, 944, 1, 864, 943, 881, 945, 945],
     [945, 1, 864, 948, 943, 881, 946, 949],
     [942, 942, 1, 864, 943, 881, 947, 944],
     [944, 944, 1, 864, 943, 881, 944, 944],
     [944, 1, 864, 943, 881, 949, 942, 942],
     [1, 943, 881, 942, 942, 942, 1, 950],
     [951, 952, 881, 953, 954, 954, 1, 864],
     [956, 881, 955, 955, 955, 1, 956, 881],
     [957, 957, 957, 1, 956, 881, 958, 958],
     [958, 1, 956, 881, 1, 937, 938, 939],
     [940, 941, 941, 1, 864, 956, 881, 959],
     [955, 955, 1, 864, 956, 881, 960, 957],
     [957, 1, 864, 956, 881, 958, 958, 958],
     [1, 864, 961, 956, 881, 959, 962, 955],
     [955, 1, 864, 956, 881, 960, 957, 957],
     [957, 1, 864, 956, 881, 957, 957, 957],
     [1, 864, 956, 881, 962, 955, 955, 1],
     [956, 881, 955, 955, 955, 1, 963, 1],
     [964, 965, 966, 881, 967, 968, 968, 1],
     [864, 970, 881, 969, 969, 969, 1, 970],
     [881, 971, 971, 971, 1, 970, 881, 972],
     [972, 972, 1, 970, 881, 1, 950, 951],
     [952, 953, 954, 954, 1, 864, 970, 881],
     [973, 969, 969, 1, 864, 970, 881, 974],
     [971, 971, 1, 864, 970, 881, 972, 972],
     [972, 1, 864, 975, 970, 881, 973, 976],
     [969, 969, 1, 864, 970, 881, 974, 971],
     [971, 971, 1, 864, 970, 881, 971, 971],
     [971, 1, 864, 970, 881, 976, 969, 969],
     [1, 970, 881, 969, 969, 969, 1, 640],
     [641, 977, 978, 642, 640, 640, 640, 643],
     [977, 640, 640, 979, 979, 979, 1, 640],
     [641, 977, 642, 640, 640, 640, 643, 977],
     [640, 640, 979, 979, 979, 1, 640, 641],
     [977, 980, 642, 640, 640, 640, 643, 977],
     [640, 640, 979, 979, 979, 1, 640, 641],
     [642, 640, 640, 640, 643, 640, 640, 640],
     [979, 981, 981, 1, 640, 641, 982, 983],
     [984, 985, 640, 661, 986, 643, 982, 640],
     [640, 981, 981, 981, 1, 640, 641, 982],
     [642, 640, 640, 640, 643, 982, 640, 640],
     [981, 981, 981, 1, 640, 641, 984, 985],
     [640, 661, 986, 643, 640, 640, 640, 979],
     [981, 981, 1, 642, 645, 987, 989, 642],
     [643, 642, 642, 642, 988, 990, 642, 642],
     [1, 642, 645, 991, 642, 643, 642, 642],
     [642, 992, 642, 642, 1, 642, 645, 993]]"

definition sup_indicies_6 :: "int list list" where
  "sup_indicies_6 =
    [[642, 643, 642, 642, 642, 994, 642, 642],
     [1, 642, 645, 642, 642, 643, 642, 642],
     [642, 995, 642, 642, 1, 642, 645, 672],
     [673, 674, 643, 642, 642, 642, 642, 642],
     [642, 1, 642, 645, 672, 673, 674, 643],
     [642, 642, 642, 995, 642, 642, 1, 642],
     [645, 672, 673, 674, 643, 642, 642, 642],
     [994, 642, 642, 1, 642, 645, 672, 673],
     [674, 643, 642, 642, 642, 996, 642, 642],
     [1, 642, 645, 672, 673, 674, 643, 642],
     [642, 642, 992, 642, 642, 1, 642, 645],
     [997, 672, 673, 674, 643, 642, 642, 642],
     [996, 992, 642, 642, 1, 642, 645, 998],
     [672, 673, 674, 643, 642, 642, 642, 992],
     [994, 642, 642, 1, 642, 645, 999, 672],
     [673, 674, 643, 642, 642, 642, 994, 995],
     [642, 642, 1, 642, 645, 672, 673, 674],
     [643, 642, 642, 642, 995, 642, 642, 642],
     [1, 1000, 640, 1001, 640, 1002, 640, 640],
     [640, 643, 1003, 1004, 1005, 675, 675, 1000],
     [1003, 1004, 1005, 1000, 1000, 1000, 1000, 1],
     [1006, 640, 1007, 640, 1008, 1009, 1010, 684],
     [1011, 643, 680, 680, 1006, 1006, 1006, 1006],
     [1006, 1, 1012, 1012, 1012, 1, 1006, 1006],
     [1006, 1, 1008, 1013, 642, 680, 680, 682],
     [1014, 684, 685, 643, 680, 680, 1008, 1008],
     [1008, 1008, 1008, 1, 1015, 1015, 1015, 1],
     [1008, 1008, 1008, 1, 1016, 1017, 642, 687],
     [687, 682, 1018, 684, 685, 643, 687, 687],
     [1016, 1016, 1016, 1016, 1016, 1, 1019, 1020],
     [642, 690, 690, 692, 642, 693, 694, 643],
     [690, 690, 1019, 1019, 1019, 1019, 1019, 1],
     [1021, 1021, 1021, 1, 1019, 1019, 1019, 1],
     [1016, 1017, 642, 687, 687, 642, 643, 687],
     [687, 1016, 1016, 1016, 1016, 1016, 1, 1022],
     [640, 1023, 640, 1016, 1009, 1024, 684, 1011],
     [643, 687, 687, 1022, 1022, 1022, 1022, 1022],
     [1, 1025, 640, 1026, 640, 1019, 1027, 640],
     [693, 1028, 643, 690, 690, 1025, 1025, 1025],
     [1025, 1025, 1, 1029, 1029, 1029, 1, 1025],
     [1025, 1025, 1, 1030, 1030, 1031, 640, 1032],
     [640, 640, 643, 696, 696, 1030, 1030, 640],
     [1030, 1030, 1030, 1, 1030, 1030, 1031, 640],
     [1032, 640, 1033, 643, 696, 696, 1030, 1030],
     [640, 1030, 1030, 1030, 1, 1034, 1034, 1034],
     [1, 1030, 1030, 1030, 1, 1032, 1035, 642],
     [642, 696, 696, 1036, 696, 643, 696, 696],
     [1032, 1032, 1032, 1032, 1032, 1, 1037, 1037],
     [1037, 1, 1032, 1032, 1032, 1, 1036, 1038],
     [1039, 642, 698, 698, 642, 702, 698, 643],
     [698, 698, 1036, 1036, 1036, 1036, 1036, 1],
     [1040, 1040, 1040, 1, 1036, 1036, 1036, 1],
     [1032, 1035, 642, 642, 696, 696, 642, 696],
     [643, 696, 696, 1032, 1032, 1032, 1032, 1032],
     [1, 1033, 640, 1041, 1042, 640, 1036, 640],
     [640, 702, 643, 698, 698, 1033, 1033, 1033],
     [1033, 1033, 1, 1043, 1043, 1043, 1, 1033],
     [1033, 1033, 1, 1022, 640, 1023, 640, 1016],
     [640, 640, 640, 643, 687, 687, 1022, 1022],
     [1022, 1022, 1022, 1, 1006, 640, 1007, 640],
     [1008, 1009, 1010, 684, 1011, 643, 1044, 680],
     [680, 1006, 1044, 1006, 1006, 1006, 1006, 1],
     [1006, 640, 1007, 640, 1008, 1045, 1046, 707],
     [1047, 643, 680, 680, 1006, 1006, 1006, 1006],
     [1006, 1, 1048, 640, 1049, 1048, 640, 1022],
     [1016, 1009, 1024, 684, 1011, 643, 687, 687],
     [711, 1048, 1022, 1048, 1048, 1048, 1, 1050],
     [640, 1051, 1050, 640, 1025, 1019, 1027, 640],
     [693, 1028, 643, 690, 690, 711, 1050, 1025],
     [1050, 1050, 1050, 1, 711, 711, 711, 715],
     [27, 716, 711, 711, 711, 1052, 1052, 711],
     [711, 1052, 711, 1, 711, 711, 711, 715],
     [27, 716, 711, 711, 711, 1050, 1050, 711],
     [711, 1050, 711, 1, 1006, 640, 1007, 640],
     [1008, 1009, 1010, 684, 1011, 643, 1053, 1054],
     [680, 680, 1006, 1053, 1054, 1006, 1006, 1006],
     [1006, 1, 1006, 640, 1007, 640, 1008, 1055],
     [1056, 721, 1057, 643, 680, 680, 1006, 1006],
     [1006, 1006, 1006, 1, 1006, 640, 1007, 640],
     [1008, 1009, 1010, 684, 1011, 643, 1058, 680],
     [680, 1006, 1058, 1006, 1006, 1006, 1006, 1],
     [1006, 640, 1007, 640, 1008, 1009, 1010, 684],
     [1011, 643, 1059, 680, 680, 1006, 1059, 1006],
     [1006, 1006, 1006, 1, 1006, 640, 1007, 640],
     [1008, 1009, 1060, 684, 1011, 643, 680, 680],
     [1006, 1006, 1006, 1006, 1006, 1, 1061, 640],
     [1062, 1061, 640, 1022, 1016, 1009, 1024, 684],
     [1011, 643, 687, 687, 728, 1061, 1022, 1061],
     [1061, 1061, 1, 1063, 640, 1064, 1063, 640],
     [1025, 1019, 1065, 640, 732, 1066, 643, 690],
     [690, 734, 1063, 1025, 1063, 1063, 1063, 1],
     [734, 734, 734, 736, 737, 738, 734, 734],
     [734, 1067, 1067, 734, 734, 1067, 734, 1],
     [734, 734, 734, 736, 737, 738, 734, 734],
     [734, 1063, 1063, 734, 734, 1063, 734, 1],
     [1006, 640, 1007, 640, 1008, 1009, 1010, 684],
     [1011, 643, 1068, 680, 680, 1006, 1068, 1006],
     [1006, 1006, 1006, 1, 1006, 640, 1007, 640],
     [1008, 1009, 1010, 684, 1011, 643, 1069, 680],
     [680, 1006, 1069, 1006, 1006, 1006, 1006, 1],
     [1006, 640, 1007, 640, 1008, 1009, 1010, 684],
     [1011, 643, 1070, 680, 680, 1006, 1070, 1006],
     [1006, 1006, 1006, 1, 1006, 640, 1007, 640],
     [1008, 1009, 1010, 684, 1011, 643, 1071, 680],
     [680, 1006, 1071, 1006, 1006, 1006, 1006, 1],
     [1006, 640, 1007, 640, 1008, 1009, 1010, 684],
     [1011, 643, 1072, 680, 680, 1006, 1072, 1006],
     [1006, 1006, 1006, 1, 1006, 640, 1007, 640],
     [1008, 1009, 1010, 684, 1011, 643, 1073, 680],
     [680, 1006, 1073, 1006, 1006, 1006, 1006, 1],
     [1006, 640, 1007, 640, 1008, 1009, 1010, 684],
     [1011, 643, 1074, 680, 680, 1006, 1074, 1006],
     [1006, 1006, 1006, 1, 1006, 640, 1007, 640],
     [1008, 1009, 1010, 684, 1011, 643, 1075, 680],
     [680, 1006, 1075, 1006, 1006, 1006, 1006, 1],
     [1006, 640, 1007, 640, 1008, 1009, 1076, 684],
     [1011, 643, 680, 680, 1006, 1006, 1006, 1006],
     [1006, 1, 1077, 640, 1078, 1077, 640, 1022],
     [1016, 1009, 1024, 684, 1011, 643, 1079, 1080],
     [1081, 1082, 687, 687, 754, 1079, 1080, 1081],
     [1082, 1077, 1022, 1077, 1077, 1077, 1, 1083],
     [640, 1084, 1083, 640, 1025, 1019, 1085, 640],
     [758, 1086, 643, 690, 690, 760, 1083, 1025],
     [1083, 1083, 1083, 1, 760, 760, 760, 762],
     [763, 764, 760, 760, 760, 1087, 1087, 760],
     [760, 1087, 760, 1, 760, 760, 760, 762],
     [763, 764, 760, 760, 760, 1083, 1083, 760],
     [760, 1083, 760, 1, 1083, 640, 1084, 1083],
     [640, 1025, 1019, 1085, 640, 758, 1086, 643],
     [1088, 690, 690, 760, 1088, 1083, 1025, 1083],
     [1083, 1083, 1, 1083, 640, 1084, 1083, 640],
     [1025, 1019, 1085, 640, 758, 1086, 643, 1089],
     [690, 690, 760, 1089, 1083, 1025, 1083, 1083],
     [1083, 1, 1083, 640, 1084, 1083, 640, 1025],
     [1019, 1085, 640, 758, 1086, 643, 1090, 690],
     [690, 760, 1090, 1083, 1025, 1083, 1083, 1083],
     [1, 1083, 640, 1084, 1083, 640, 1025, 1019],
     [1091, 640, 769, 1092, 643, 690, 690, 760],
     [1083, 1025, 1083, 1083, 1083, 1, 1083, 640],
     [1084, 1083, 640, 1025, 1019, 1085, 640, 758],
     [1086, 643, 1093, 1094, 690, 690, 760, 1093],
     [1094, 1083, 1025, 1083, 1083, 1083, 1, 1083],
     [640, 1084, 1083, 640, 1025, 1019, 1085, 640],
     [758, 1086, 643, 1095, 690, 690, 760, 1095],
     [1083, 1025, 1083, 1083, 1083, 1, 1083, 640],
     [1084, 1083, 640, 1025, 1019, 1096, 640, 775],
     [1097, 643, 690, 690, 760, 1083, 1025, 1083],
     [1083, 1083, 1, 1083, 640, 1084, 1083, 640],
     [1025, 1019, 1085, 640, 758, 1086, 643, 1098],
     [690, 690, 760, 1098, 1083, 1025, 1083, 1083]]"

definition sup_indicies_7 :: "int list list" where
  "sup_indicies_7 =
    [[1083, 1, 1083, 640, 1084, 1083, 640, 1025],
     [1019, 1099, 640, 779, 1100, 643, 690, 690],
     [760, 1083, 1025, 1083, 1083, 1083, 1, 1083],
     [640, 1084, 1083, 640, 1025, 1019, 1085, 640],
     [758, 1086, 643, 1101, 690, 690, 760, 1101],
     [1083, 1025, 1083, 1083, 1083, 1, 1083, 640],
     [1084, 1083, 640, 1025, 1019, 1085, 640, 758],
     [1086, 643, 1102, 690, 690, 760, 1102, 1083],
     [1025, 1083, 1083, 1083, 1, 1083, 640, 1084],
     [1083, 640, 1025, 1019, 1103, 640, 784, 1104],
     [643, 690, 690, 760, 1083, 1025, 1083, 1083],
     [1083, 1, 1083, 640, 1084, 1083, 640, 1025],
     [1019, 1085, 640, 758, 1086, 643, 1105, 690],
     [690, 760, 1105, 1083, 1025, 1083, 1083, 1083],
     [1, 1083, 640, 1084, 1083, 640, 1025, 1019],
     [1106, 640, 788, 1107, 643, 1108, 690, 690],
     [760, 1108, 1083, 1025, 1083, 1083, 1083, 1],
     [1083, 640, 1084, 1083, 640, 1025, 1019, 1109],
     [640, 792, 1110, 643, 690, 690, 760, 1083],
     [1025, 1083, 1083, 1083, 1, 640, 641, 1111],
     [1112, 1113, 642, 640, 640, 640, 643, 640],
     [640, 640, 1114, 981, 981, 1, 640, 641],
     [977, 1115, 642, 640, 640, 640, 643, 977],
     [640, 640, 979, 979, 979, 1, 640, 641],
     [1116, 1117, 1118, 642, 640, 640, 640, 643],
     [640, 640, 640, 1119, 981, 981, 1, 640],
     [641, 977, 1120, 642, 640, 640, 640, 643],
     [977, 640, 640, 979, 979, 979, 1, 640],
     [641, 1121, 1122, 1123, 642, 640, 640, 640],
     [643, 640, 640, 640, 1124, 981, 981, 1],
     [640, 641, 977, 980, 1125, 1126, 640, 814],
     [1127, 643, 977, 640, 640, 979, 979, 979],
     [1, 640, 641, 977, 980, 1125, 1126, 640],
     [814, 1127, 643, 977, 640, 640, 1124, 979],
     [979, 1, 640, 641, 977, 980, 1125, 1126],
     [640, 814, 1127, 643, 977, 640, 640, 1121],
     [979, 979, 1, 640, 641, 977, 980, 1128],
     [1125, 1126, 640, 814, 1127, 643, 977, 640],
     [640, 1124, 1121, 979, 979, 1, 640, 641],
     [977, 980, 1125, 1126, 640, 814, 1127, 643],
     [977, 640, 640, 1121, 979, 979, 979, 1],
     [640, 641, 977, 1120, 642, 640, 640, 640],
     [643, 977, 640, 640, 1119, 979, 979, 1],
     [640, 641, 977, 1120, 642, 640, 640, 640],
     [643, 977, 640, 640, 1116, 979, 979, 1],
     [640, 641, 977, 1120, 1129, 642, 640, 640],
     [640, 643, 977, 640, 640, 1119, 1116, 979],
     [979, 1, 640, 641, 977, 1120, 642, 640],
     [640, 640, 643, 977, 640, 640, 1116, 979],
     [979, 979, 1, 640, 641, 977, 1115, 642],
     [640, 640, 640, 643, 977, 640, 640, 1114],
     [979, 979, 1, 640, 641, 977, 1115, 642],
     [640, 640, 640, 643, 977, 640, 640, 1111],
     [979, 979, 1, 640, 641, 977, 1115, 1130],
     [642, 640, 640, 640, 643, 977, 640, 640],
     [1114, 1111, 979, 979, 1, 640, 641, 977],
     [1115, 642, 640, 640, 640, 643, 977, 640],
     [640, 1111, 979, 979, 979, 1, 640, 641],
     [977, 978, 642, 640, 640, 640, 643, 977],
     [640, 640, 1131, 979, 979, 1, 640, 641],
     [977, 978, 642, 640, 640, 640, 643, 977],
     [640, 640, 1132, 979, 979, 1, 640, 641],
     [977, 978, 1133, 642, 640, 640, 640, 643],
     [977, 640, 640, 1131, 1132, 979, 979, 1],
     [640, 641, 977, 978, 642, 640, 640, 640],
     [643, 977, 640, 640, 1132, 979, 979, 979],
     [1, 20, 1134, 20, 20, 20, 20, 1],
     [20, 21, 1135, 1135, 20, 20, 20, 20],
     [1, 20, 21, 1136, 1136, 20, 20, 20],
     [20, 1, 20, 1137, 20, 20, 20, 20],
     [1, 1138, 1138, 1140, 1139, 1139, 1138, 1138],
     [1138, 1, 1141, 1142, 1143, 1141, 1141, 1141],
     [1141, 1141, 1, 1144, 1145, 1145, 1144, 1144],
     [1144, 1, 1146, 1147, 1148, 684, 1146, 1146],
     [1146, 1, 1149, 1150, 1149, 1149, 1149, 1149],
     [1149, 1149, 1149, 1, 1151, 1152, 1153, 693],
     [1151, 1151, 1151, 1151, 1151, 1151, 1151, 1],
     [1154, 1154, 1154, 1, 1151, 1151, 1151, 1],
     [1146, 1147, 1148, 684, 1155, 1155, 1146, 1146],
     [1146, 1, 1146, 1147, 1148, 684, 1156, 1156],
     [1146, 1146, 1146, 1, 1146, 1147, 1148, 684],
     [1157, 1157, 1146, 1146, 1146, 1, 1146, 1147],
     [1148, 684, 1158, 1158, 1146, 1146, 1146, 1],
     [1159, 1147, 1148, 684, 1146, 1146, 1146, 1],
     [1146, 1147, 1148, 684, 1160, 1160, 1146, 1146],
     [1146, 1, 1146, 1147, 1148, 684, 1161, 1161],
     [1146, 1146, 1146, 1, 1146, 1147, 1148, 684],
     [1162, 1162, 1146, 1146, 1146, 1, 1146, 1147],
     [1148, 684, 1163, 1163, 1146, 1146, 1146, 1],
     [1146, 1147, 1148, 684, 1164, 1164, 1146, 1146],
     [1146, 1, 1146, 1147, 1148, 684, 1165, 1165],
     [1146, 1146, 1146, 1, 1146, 1147, 1148, 684],
     [1166, 1166, 1146, 1146, 1146, 1, 1146, 1147],
     [1167, 684, 1146, 1146, 1146, 1, 1149, 1150],
     [1168, 1149, 1149, 1149, 1149, 1149, 1149, 1149],
     [1169, 1170, 1170, 1, 1151, 1152, 1151, 1151],
     [1153, 693, 1151, 1151, 1151, 1151, 1171, 1151],
     [1171, 1172, 1151, 1151, 1, 1151, 1152, 1151],
     [1151, 1173, 1174, 1151, 1151, 1151, 1151, 1172],
     [1151, 1172, 1151, 1151, 1, 1151, 1152, 1175],
     [1176, 1151, 1151, 1153, 693, 1151, 1151, 1175],
     [1151, 1151, 1177, 1177, 1177, 1, 1151, 1152],
     [1175, 1151, 1153, 693, 1151, 1151, 1175, 1151],
     [1151, 1151, 1177, 1177, 1177, 1, 1151, 1152],
     [1151, 1153, 693, 1151, 1151, 1151, 1151, 1151],
     [1151, 1177, 1178, 1178, 1, 1151, 1152, 1179],
     [1180, 1151, 1151, 1173, 1174, 1151, 1151, 1179],
     [1151, 1151, 1178, 1178, 1178, 1, 1151, 1152],
     [1179, 1151, 1153, 693, 1151, 1151, 1179, 1151],
     [1151, 1151, 1178, 1178, 1178, 1, 1151, 1152],
     [1151, 1173, 1174, 1151, 1151, 1151, 1151, 1151],
     [1151, 1177, 1178, 1178, 1, 1141, 1141, 1181],
     [1181, 1141, 1141, 1141, 1, 1182, 1182, 1183],
     [1, 1142, 1143, 1183, 1183, 1183, 1, 1184],
     [1185, 1184, 1186, 1186, 1186, 1187, 1186, 1186],
     [1186, 1186, 1186, 1186, 1, 1188, 1189, 1188],
     [1186, 1186, 1186, 5, 1186, 1186, 1186, 1186],
     [1186, 1186, 1, 1190, 1, 1191, 1191, 1],
     [1191, 1191, 1186, 1186, 1186, 5, 1186, 1186],
     [1186, 1186, 1186, 1186, 1, 1197, 1198, 1199],
     [1200, 1192, 1193, 1194, 1195, 1196, 1197, 1],
     [1197, 1, 1192, 1, 1193, 1, 1194, 1],
     [1195, 1, 1201, 1, 1197, 1197, 1, 1202],
     [1203, 1202, 1187, 1, 1197, 1197, 1197, 1],
     [1204, 1205, 1204, 1204, 1204, 1204, 1, 1206],
     [1207, 1208, 1209, 1210, 1211, 1207, 1211, 1212],
     [1207, 1207, 1207, 1207, 1207, 1, 1206, 1207],
     [1208, 1209, 1213, 1207, 1214, 1207, 1207, 1207],
     [1207, 1207, 1, 1208, 1215, 1216, 1208, 1217],
     [1208, 1208, 1208, 1208, 1208, 1, 1218, 1218],
     [1218, 1, 1208, 1208, 1208, 1, 1216, 1219],
     [1216, 1217, 1216, 1216, 1216, 1216, 1216, 1216],
     [1, 1220, 1220, 1220, 1, 1216, 1216, 1216],
     [1, 1221, 1222, 1223, 1212, 1224, 1225, 1225],
     [1, 1226, 1227, 1226, 1228, 1228, 1228, 1],
     [1226, 1226, 1228, 1228, 1228, 1, 1226, 1229],
     [1226, 1228, 1228, 1228, 1, 1228, 1225, 1225],
     [1, 1206, 1230, 1231, 1232, 1211, 1230, 1225],
     [1225, 1225, 1, 1230, 1230, 1225, 1225, 1225],
     [1, 1206, 1232, 1211, 1228, 1225, 1225, 1],
     [1233, 1235, 1234, 1236, 1, 1237, 1238, 1],
     [1239, 1240, 1, 1241, 1, 1206, 1211, 1],
     [1206, 1211, 1242, 1211, 1211, 1211, 1211, 1211],
     [1211, 1, 1243, 1243, 1243, 1, 1211, 1211],
     [1211, 1, 1206, 1211, 1241, 1, 1206, 1211],
     [1240, 1, 1206, 1211, 1236, 1, 1206, 1211],
     [1238, 1, 1206, 1244, 1211, 1236, 1238, 1],
     [1206, 1245, 1211, 1238, 1240, 1, 1206, 1246],
     [1211, 1240, 1241, 1, 1206, 1211, 1241, 1],
     [1247, 1248, 1249, 1250, 1225, 1225, 1, 1226]]"

definition sup_indicies_8 :: "int list list" where
  "sup_indicies_8 =
    [[1251, 1226, 1228, 1228, 1228, 1, 1252, 1253],
     [1254, 1255, 1225, 1225, 1, 1226, 1256, 1226],
     [1228, 1228, 1228, 1, 1257, 1258, 1259, 1260],
     [1225, 1225, 1, 1206, 1226, 1229, 1232, 1211],
     [1226, 1228, 1228, 1228, 1, 1206, 1226, 1229],
     [1232, 1211, 1226, 1260, 1228, 1228, 1, 1206],
     [1226, 1229, 1232, 1211, 1226, 1257, 1228, 1228],
     [1, 1206, 1226, 1229, 1261, 1232, 1211, 1226],
     [1260, 1257, 1228, 1228, 1, 1206, 1226, 1229],
     [1232, 1211, 1226, 1257, 1228, 1228, 1228, 1],
     [1226, 1256, 1226, 1255, 1228, 1228, 1, 1226],
     [1256, 1226, 1252, 1228, 1228, 1, 1226, 1256],
     [1262, 1226, 1255, 1252, 1228, 1228, 1, 1226],
     [1256, 1226, 1252, 1228, 1228, 1228, 1, 1226],
     [1251, 1226, 1250, 1228, 1228, 1, 1226, 1251],
     [1226, 1247, 1228, 1228, 1, 1226, 1251, 1263],
     [1226, 1250, 1247, 1228, 1228, 1, 1226, 1251],
     [1226, 1247, 1228, 1228, 1228, 1, 1226, 1227],
     [1226, 1224, 1228, 1228, 1, 1226, 1227, 1226],
     [1221, 1228, 1228, 1, 1226, 1227, 1264, 1226],
     [1224, 1221, 1228, 1228, 1, 1226, 1227, 1226],
     [1221, 1228, 1228, 1228, 1, 1266, 1265, 1265],
     [1265, 1, 1268, 1267, 1267, 1267, 1, 1268],
     [1269, 1269, 1269, 1, 1268, 1270, 1270, 1270],
     [1, 1268, 1, 1272, 1271, 1271, 1271, 1],
     [1274, 1273, 1273, 1273, 1, 1274, 1275, 1275],
     [1275, 1, 1274, 1276, 1276, 1276, 1, 1274],
     [1, 1278, 1277, 1277, 1277, 1, 1280, 1279],
     [1279, 1279, 1, 1280, 1281, 1281, 1281, 1],
     [1280, 1282, 1282, 1282, 1, 1280, 1, 1284],
     [1283, 1283, 1283, 1, 1286, 1285, 1285, 1285],
     [1, 1286, 1287, 1287, 1287, 1, 1286, 1288],
     [1288, 1288, 1, 1286, 1, 1290, 1289, 1289],
     [1289, 1, 1292, 1291, 1291, 1291, 1, 1292],
     [1293, 1293, 1293, 1, 1292, 1294, 1294, 1294],
     [1, 1292, 1, 1296, 1295, 1295, 1295, 1],
     [1298, 1297, 1297, 1297, 1, 1298, 1299, 1299],
     [1299, 1, 1298, 1300, 1300, 1300, 1, 1298],
     [1, 1301, 1302, 1303, 1305, 1304, 1306, 1306],
     [1, 1307, 1309, 1308, 1308, 1308, 1, 1310],
     [1311, 1312, 1313, 1, 1314, 1, 1315, 1316],
     [1317, 1318, 1, 1319, 1, 1320, 1321, 1322],
     [1323, 1, 1324, 1, 1206, 1232, 1211, 1],
     [1324, 1323, 1, 1324, 1320, 1, 1325, 1324],
     [1323, 1320, 1, 1324, 1320, 1, 1319, 1318],
     [1, 1319, 1315, 1, 1319, 1326, 1318, 1315],
     [1, 1319, 1315, 1, 1314, 1313, 1, 1314],
     [1310, 1, 1314, 1327, 1313, 1310, 1, 1314],
     [1310, 1, 1309, 1328, 1328, 1328, 1, 1309],
     [1329, 1329, 1329, 1, 1309, 1, 1320, 1330],
     [1330, 1330, 1, 1324, 1331, 1331, 1331, 1],
     [1324, 1332, 1332, 1332, 1, 1324, 1320, 1320],
     [1320, 1, 1307, 1309, 1333, 1308, 1308, 1],
     [1307, 1309, 1334, 1328, 1328, 1, 1307, 1309],
     [1329, 1329, 1329, 1, 1307, 1335, 1309, 1333],
     [1336, 1308, 1308, 1, 1307, 1309, 1334, 1328],
     [1328, 1328, 1, 1307, 1309, 1328, 1328, 1328],
     [1, 1307, 1309, 1336, 1308, 1308, 1, 1324],
     [1330, 1330, 1330, 1, 1309, 1308, 1308, 1308],
     [1, 1337, 1338, 1339, 1324, 1340, 1341, 1341],
     [1, 1307, 1343, 1324, 1342, 1342, 1342, 1],
     [1343, 1324, 1344, 1344, 1344, 1, 1343, 1324],
     [1345, 1345, 1345, 1, 1343, 1324, 1, 1330],
     [1330, 1330, 1, 1307, 1343, 1324, 1346, 1342],
     [1342, 1, 1307, 1343, 1324, 1347, 1344, 1344],
     [1, 1307, 1343, 1324, 1345, 1345, 1345, 1],
     [1307, 1348, 1343, 1324, 1346, 1349, 1342, 1342],
     [1, 1307, 1343, 1324, 1347, 1344, 1344, 1344],
     [1, 1307, 1343, 1324, 1344, 1344, 1344, 1],
     [1307, 1343, 1324, 1349, 1342, 1342, 1, 1343],
     [1324, 1342, 1342, 1342, 1, 1350, 1351, 1352],
     [1324, 1353, 1354, 1354, 1, 1307, 1356, 1324],
     [1355, 1355, 1355, 1, 1356, 1324, 1357, 1357],
     [1357, 1, 1356, 1324, 1358, 1358, 1358, 1],
     [1356, 1324, 1, 1337, 1338, 1339, 1340, 1341],
     [1341, 1, 1307, 1356, 1324, 1359, 1355, 1355],
     [1, 1307, 1356, 1324, 1360, 1357, 1357, 1],
     [1307, 1356, 1324, 1358, 1358, 1358, 1, 1307],
     [1361, 1356, 1324, 1359, 1362, 1355, 1355, 1],
     [1307, 1356, 1324, 1360, 1357, 1357, 1357, 1],
     [1307, 1356, 1324, 1357, 1357, 1357, 1, 1307],
     [1356, 1324, 1362, 1355, 1355, 1, 1356, 1324],
     [1355, 1355, 1355, 1, 1363, 1364, 1365, 1324],
     [1366, 1367, 1367, 1, 1307, 1369, 1324, 1368],
     [1368, 1368, 1, 1369, 1324, 1370, 1370, 1370],
     [1, 1369, 1324, 1371, 1371, 1371, 1, 1369],
     [1324, 1, 1350, 1351, 1352, 1353, 1354, 1354],
     [1, 1307, 1369, 1324, 1372, 1368, 1368, 1],
     [1307, 1369, 1324, 1373, 1370, 1370, 1, 1307],
     [1369, 1324, 1371, 1371, 1371, 1, 1307, 1374],
     [1369, 1324, 1372, 1375, 1368, 1368, 1, 1307],
     [1369, 1324, 1373, 1370, 1370, 1370, 1, 1307],
     [1369, 1324, 1370, 1370, 1370, 1, 1307, 1369],
     [1324, 1375, 1368, 1368, 1, 1369, 1324, 1368],
     [1368, 1368, 1, 1376, 1377, 1378, 1324, 1379],
     [1380, 1380, 1, 1307, 1382, 1324, 1381, 1381],
     [1381, 1, 1382, 1324, 1383, 1383, 1383, 1],
     [1382, 1324, 1384, 1384, 1384, 1, 1382, 1324],
     [1, 1363, 1364, 1365, 1366, 1367, 1367, 1],
     [1307, 1382, 1324, 1385, 1381, 1381, 1, 1307],
     [1382, 1324, 1386, 1383, 1383, 1, 1307, 1382],
     [1324, 1384, 1384, 1384, 1, 1307, 1387, 1382],
     [1324, 1385, 1388, 1381, 1381, 1, 1307, 1382],
     [1324, 1386, 1383, 1383, 1383, 1, 1307, 1382],
     [1324, 1383, 1383, 1383, 1, 1307, 1382, 1324],
     [1388, 1381, 1381, 1, 1382, 1324, 1381, 1381],
     [1381, 1, 1389, 1390, 1391, 1324, 1392, 1393],
     [1393, 1, 1307, 1395, 1324, 1394, 1394, 1394],
     [1, 1395, 1324, 1396, 1396, 1396, 1, 1395],
     [1324, 1397, 1397, 1397, 1, 1395, 1324, 1],
     [1376, 1377, 1378, 1379, 1380, 1380, 1, 1307],
     [1395, 1324, 1398, 1394, 1394, 1, 1307, 1395],
     [1324, 1399, 1396, 1396, 1, 1307, 1395, 1324],
     [1397, 1397, 1397, 1, 1307, 1400, 1395, 1324],
     [1398, 1401, 1394, 1394, 1, 1307, 1395, 1324],
     [1399, 1396, 1396, 1396, 1, 1307, 1395, 1324],
     [1396, 1396, 1396, 1, 1307, 1395, 1324, 1401],
     [1394, 1394, 1, 1395, 1324, 1394, 1394, 1394],
     [1, 1402, 1, 1403, 1404, 1405, 1324, 1406],
     [1407, 1407, 1, 1307, 1409, 1324, 1408, 1408],
     [1408, 1, 1409, 1324, 1410, 1410, 1410, 1],
     [1409, 1324, 1411, 1411, 1411, 1, 1409, 1324],
     [1, 1389, 1390, 1391, 1392, 1393, 1393, 1],
     [1307, 1409, 1324, 1412, 1408, 1408, 1, 1307],
     [1409, 1324, 1413, 1410, 1410, 1, 1307, 1409],
     [1324, 1411, 1411, 1411, 1, 1307, 1414, 1409],
     [1324, 1412, 1415, 1408, 1408, 1, 1307, 1409],
     [1324, 1413, 1410, 1410, 1410, 1, 1307, 1409],
     [1324, 1410, 1410, 1410, 1, 1307, 1409, 1324],
     [1415, 1408, 1408, 1, 1409, 1324, 1408, 1408],
     [1408, 1, 1416, 1416, 1416, 1, 1207, 1207],
     [1207, 1, 1206, 1213, 1417, 1211, 1213, 1211],
     [1214, 1213, 1213, 1213, 1211, 1213, 1213, 1],
     [1418, 1418, 1418, 1, 1213, 1213, 1213, 1],
     [1206, 1211, 1242, 1211, 1212, 1211, 1211, 1211],
     [1211, 1211, 1, 1206, 1207, 1208, 1209, 1419],
     [1213, 1207, 1214, 1207, 1207, 1207, 1207, 1207],
     [1, 1206, 1420, 1421, 1422, 1213, 1420, 1214],
     [1423, 1420, 1420, 1420, 1420, 1420, 1, 1206],
     [1420, 1421, 1422, 1424, 1420, 1425, 1420, 1420],
     [1420, 1420, 1420, 1, 1421, 1426, 1427, 1421],
     [1428, 1421, 1421, 1421, 1421, 1421, 1, 1429],
     [1429, 1429, 1, 1421, 1421, 1421, 1, 1427],
     [1430, 1427, 1428, 1427, 1427, 1427, 1427, 1427],
     [1427, 1, 1431, 1431, 1431, 1, 1427, 1427],
     [1427, 1, 1432, 1433, 1434, 1423, 1435, 1436],
     [1436, 1, 1437, 1438, 1437, 1439, 1439, 1439],
     [1, 1437, 1437, 1439, 1439, 1439, 1, 1437],
     [1440, 1437, 1439, 1439, 1439, 1, 1439, 1436],
     [1436, 1, 1206, 1441, 1442, 1211, 1443, 1211]]"

definition sup_indicies_9 :: "int list list" where
  "sup_indicies_9 =
    [[1441, 1436, 1436, 1436, 1, 1441, 1441, 1436],
     [1436, 1436, 1, 1206, 1211, 1443, 1211, 1439],
     [1436, 1436, 1, 1444, 1446, 1445, 1447, 1],
     [1448, 1449, 1, 1450, 1451, 1, 1452, 1],
     [1206, 1211, 1211, 1, 1206, 1211, 1211, 1452],
     [1, 1206, 1211, 1211, 1451, 1, 1206, 1211],
     [1211, 1447, 1, 1206, 1211, 1211, 1449, 1],
     [1206, 1211, 1453, 1211, 1447, 1449, 1, 1206],
     [1211, 1454, 1211, 1449, 1451, 1, 1206, 1211],
     [1455, 1211, 1451, 1452, 1, 1206, 1211, 1211],
     [1452, 1, 1456, 1457, 1458, 1459, 1436, 1436],
     [1, 1437, 1460, 1437, 1439, 1439, 1439, 1],
     [1461, 1462, 1463, 1464, 1436, 1436, 1, 1437],
     [1465, 1437, 1439, 1439, 1439, 1, 1466, 1467],
     [1468, 1469, 1436, 1436, 1, 1206, 1437, 1440],
     [1211, 1443, 1211, 1437, 1439, 1439, 1439, 1],
     [1206, 1437, 1440, 1211, 1443, 1211, 1437, 1469],
     [1439, 1439, 1, 1206, 1437, 1440, 1211, 1443],
     [1211, 1437, 1466, 1439, 1439, 1, 1206, 1437],
     [1440, 1211, 1470, 1443, 1211, 1437, 1469, 1466],
     [1439, 1439, 1, 1206, 1437, 1440, 1211, 1443],
     [1211, 1437, 1466, 1439, 1439, 1439, 1, 1437],
     [1465, 1437, 1464, 1439, 1439, 1, 1437, 1465],
     [1437, 1461, 1439, 1439, 1, 1437, 1465, 1471],
     [1437, 1464, 1461, 1439, 1439, 1, 1437, 1465],
     [1437, 1461, 1439, 1439, 1439, 1, 1437, 1460],
     [1437, 1459, 1439, 1439, 1, 1437, 1460, 1437],
     [1456, 1439, 1439, 1, 1437, 1460, 1472, 1437],
     [1459, 1456, 1439, 1439, 1, 1437, 1460, 1437],
     [1456, 1439, 1439, 1439, 1, 1437, 1438, 1437],
     [1435, 1439, 1439, 1, 1437, 1438, 1437, 1432],
     [1439, 1439, 1, 1437, 1438, 1473, 1437, 1435],
     [1432, 1439, 1439, 1, 1437, 1438, 1437, 1432],
     [1439, 1439, 1439, 1, 1475, 1474, 1474, 1474],
     [1, 1477, 1476, 1476, 1476, 1, 1477, 1478],
     [1478, 1478, 1, 1477, 1479, 1479, 1479, 1],
     [1477, 1, 1481, 1480, 1480, 1480, 1, 1483],
     [1482, 1482, 1482, 1, 1483, 1484, 1484, 1484],
     [1, 1483, 1485, 1485, 1485, 1, 1483, 1],
     [1487, 1486, 1486, 1486, 1, 1489, 1488, 1488],
     [1488, 1, 1489, 1490, 1490, 1490, 1, 1489],
     [1491, 1491, 1491, 1, 1489, 1, 1493, 1492],
     [1492, 1492, 1, 1495, 1494, 1494, 1494, 1],
     [1495, 1496, 1496, 1496, 1, 1495, 1497, 1497],
     [1497, 1, 1495, 1, 1499, 1498, 1498, 1498],
     [1, 1501, 1500, 1500, 1500, 1, 1501, 1502],
     [1502, 1502, 1, 1501, 1503, 1503, 1503, 1],
     [1501, 1, 1505, 1504, 1504, 1504, 1, 1507],
     [1506, 1506, 1506, 1, 1507, 1508, 1508, 1508],
     [1, 1507, 1509, 1509, 1509, 1, 1507, 1],
     [1510, 1511, 1512, 1514, 1513, 1515, 1515, 1],
     [1516, 1518, 1517, 1517, 1517, 1, 1519, 1520],
     [1521, 1522, 1, 1523, 1, 1524, 1525, 1526],
     [1527, 1, 1528, 1, 1529, 1530, 1531, 1532],
     [1, 1533, 1, 1206, 1211, 1443, 1211, 1],
     [1533, 1532, 1, 1533, 1529, 1, 1534, 1533],
     [1532, 1529, 1, 1533, 1529, 1, 1528, 1527],
     [1, 1528, 1524, 1, 1528, 1535, 1527, 1524],
     [1, 1528, 1524, 1, 1523, 1522, 1, 1523],
     [1519, 1, 1523, 1536, 1522, 1519, 1, 1523],
     [1519, 1, 1518, 1537, 1537, 1537, 1, 1518],
     [1538, 1538, 1538, 1, 1518, 1, 1529, 1539],
     [1539, 1539, 1, 1533, 1540, 1540, 1540, 1],
     [1533, 1541, 1541, 1541, 1, 1533, 1529, 1529],
     [1529, 1, 1516, 1518, 1542, 1517, 1517, 1],
     [1516, 1518, 1543, 1537, 1537, 1, 1516, 1518],
     [1538, 1538, 1538, 1, 1516, 1544, 1518, 1542],
     [1545, 1517, 1517, 1, 1516, 1518, 1543, 1537],
     [1537, 1537, 1, 1516, 1518, 1537, 1537, 1537],
     [1, 1516, 1518, 1545, 1517, 1517, 1, 1533],
     [1539, 1539, 1539, 1, 1518, 1517, 1517, 1517],
     [1, 1546, 1547, 1548, 1533, 1549, 1550, 1550],
     [1, 1516, 1552, 1533, 1551, 1551, 1551, 1],
     [1552, 1533, 1553, 1553, 1553, 1, 1552, 1533],
     [1554, 1554, 1554, 1, 1552, 1533, 1, 1539],
     [1539, 1539, 1, 1516, 1552, 1533, 1555, 1551],
     [1551, 1, 1516, 1552, 1533, 1556, 1553, 1553],
     [1, 1516, 1552, 1533, 1554, 1554, 1554, 1],
     [1516, 1557, 1552, 1533, 1555, 1558, 1551, 1551],
     [1, 1516, 1552, 1533, 1556, 1553, 1553, 1553],
     [1, 1516, 1552, 1533, 1553, 1553, 1553, 1],
     [1516, 1552, 1533, 1558, 1551, 1551, 1, 1552],
     [1533, 1551, 1551, 1551, 1, 1559, 1560, 1561],
     [1533, 1562, 1563, 1563, 1, 1516, 1565, 1533],
     [1564, 1564, 1564, 1, 1565, 1533, 1566, 1566],
     [1566, 1, 1565, 1533, 1567, 1567, 1567, 1],
     [1565, 1533, 1, 1546, 1547, 1548, 1549, 1550],
     [1550, 1, 1516, 1565, 1533, 1568, 1564, 1564],
     [1, 1516, 1565, 1533, 1569, 1566, 1566, 1],
     [1516, 1565, 1533, 1567, 1567, 1567, 1, 1516],
     [1570, 1565, 1533, 1568, 1571, 1564, 1564, 1],
     [1516, 1565, 1533, 1569, 1566, 1566, 1566, 1],
     [1516, 1565, 1533, 1566, 1566, 1566, 1, 1516],
     [1565, 1533, 1571, 1564, 1564, 1, 1565, 1533],
     [1564, 1564, 1564, 1, 1572, 1573, 1574, 1533],
     [1575, 1576, 1576, 1, 1516, 1578, 1533, 1577],
     [1577, 1577, 1, 1578, 1533, 1579, 1579, 1579],
     [1, 1578, 1533, 1580, 1580, 1580, 1, 1578],
     [1533, 1, 1559, 1560, 1561, 1562, 1563, 1563],
     [1, 1516, 1578, 1533, 1581, 1577, 1577, 1],
     [1516, 1578, 1533, 1582, 1579, 1579, 1, 1516],
     [1578, 1533, 1580, 1580, 1580, 1, 1516, 1583],
     [1578, 1533, 1581, 1584, 1577, 1577, 1, 1516],
     [1578, 1533, 1582, 1579, 1579, 1579, 1, 1516],
     [1578, 1533, 1579, 1579, 1579, 1, 1516, 1578],
     [1533, 1584, 1577, 1577, 1, 1578, 1533, 1577],
     [1577, 1577, 1, 1585, 1586, 1587, 1533, 1588],
     [1589, 1589, 1, 1516, 1591, 1533, 1590, 1590],
     [1590, 1, 1591, 1533, 1592, 1592, 1592, 1],
     [1591, 1533, 1593, 1593, 1593, 1, 1591, 1533],
     [1, 1572, 1573, 1574, 1575, 1576, 1576, 1],
     [1516, 1591, 1533, 1594, 1590, 1590, 1, 1516],
     [1591, 1533, 1595, 1592, 1592, 1, 1516, 1591],
     [1533, 1593, 1593, 1593, 1, 1516, 1596, 1591],
     [1533, 1594, 1597, 1590, 1590, 1, 1516, 1591],
     [1533, 1595, 1592, 1592, 1592, 1, 1516, 1591],
     [1533, 1592, 1592, 1592, 1, 1516, 1591, 1533],
     [1597, 1590, 1590, 1, 1591, 1533, 1590, 1590],
     [1590, 1, 1598, 1599, 1600, 1533, 1601, 1602],
     [1602, 1, 1516, 1604, 1533, 1603, 1603, 1603],
     [1, 1604, 1533, 1605, 1605, 1605, 1, 1604],
     [1533, 1606, 1606, 1606, 1, 1604, 1533, 1],
     [1585, 1586, 1587, 1588, 1589, 1589, 1, 1516],
     [1604, 1533, 1607, 1603, 1603, 1, 1516, 1604],
     [1533, 1608, 1605, 1605, 1, 1516, 1604, 1533],
     [1606, 1606, 1606, 1, 1516, 1609, 1604, 1533],
     [1607, 1610, 1603, 1603, 1, 1516, 1604, 1533],
     [1608, 1605, 1605, 1605, 1, 1516, 1604, 1533],
     [1605, 1605, 1605, 1, 1516, 1604, 1533, 1610],
     [1603, 1603, 1, 1604, 1533, 1603, 1603, 1603],
     [1, 1611, 1, 1612, 1613, 1614, 1533, 1615],
     [1616, 1616, 1, 1516, 1618, 1533, 1617, 1617],
     [1617, 1, 1618, 1533, 1619, 1619, 1619, 1],
     [1618, 1533, 1620, 1620, 1620, 1, 1618, 1533],
     [1, 1598, 1599, 1600, 1601, 1602, 1602, 1],
     [1516, 1618, 1533, 1621, 1617, 1617, 1, 1516],
     [1618, 1533, 1622, 1619, 1619, 1, 1516, 1618],
     [1533, 1620, 1620, 1620, 1, 1516, 1623, 1618],
     [1533, 1621, 1624, 1617, 1617, 1, 1516, 1618],
     [1533, 1622, 1619, 1619, 1619, 1, 1516, 1618],
     [1533, 1619, 1619, 1619, 1, 1516, 1618, 1533],
     [1624, 1617, 1617, 1, 1618, 1533, 1617, 1617],
     [1617, 1, 1625, 1625, 1625, 1, 1420, 1420],
     [1420, 1, 1206, 1424, 1626, 1211, 1424, 1211],
     [1425, 1424, 1424, 1424, 1211, 1424, 1424, 1],
     [1627, 1627, 1627, 1, 1424, 1424, 1424, 1],
     [1206, 1211, 1242, 1211, 1423, 1211, 1211, 1211],
     [1211, 1211, 1, 1204, 1205, 1628, 1628, 1204],
     [1204, 1204, 1204, 1, 1204, 1205, 1629, 1629],
     [1204, 1204, 1204, 1204, 1, 1204, 1630, 1631]]"

definition sup_indicies_10 :: "int list list" where
  "sup_indicies_10 =
    [[1631, 1204, 1204, 1204, 1204, 1, 1632, 1633],
     [1634, 1635, 1636, 1632, 1632, 1632, 1639, 1632],
     [1632, 1632, 1637, 1638, 1638, 1, 1640, 1641],
     [1642, 1640, 1643, 1640, 1640, 1640, 1640, 1640],
     [1, 1644, 1644, 1644, 1, 1640, 1640, 1640],
     [1, 1642, 1645, 1642, 1643, 1642, 1642, 1642],
     [1642, 1642, 1642, 1, 1646, 1646, 1646, 1],
     [1642, 1642, 1642, 1, 1647, 1648, 1649, 1639],
     [1650, 1651, 1651, 1, 1652, 1653, 1652, 1654],
     [1654, 1654, 1, 1652, 1652, 1654, 1654, 1654],
     [1, 1652, 1655, 1652, 1654, 1654, 1654, 1],
     [1654, 1656, 1656, 1, 1657, 1658, 1659, 1660],
     [1661, 1662, 1658, 1656, 1656, 1656, 1, 1658],
     [1658, 1656, 1656, 1656, 1, 1657, 1660, 1661],
     [1662, 1654, 1656, 1656, 1, 1663, 1665, 1664],
     [1666, 1, 1667, 1668, 1, 1669, 1670, 1],
     [1671, 1, 1672, 1673, 1674, 1, 1675, 1676],
     [1677, 1678, 1679, 1675, 1675, 1677, 1678, 1679],
     [1675, 1675, 1675, 1675, 1675, 1, 1680, 1681],
     [1682, 1683, 1684, 1685, 1681, 1681, 1681, 1681],
     [1681, 1681, 1681, 1, 1686, 1686, 1686, 1],
     [1681, 1681, 1681, 1, 1680, 1687, 1688, 1683],
     [1689, 1685, 1687, 1687, 1687, 1687, 1687, 1687],
     [1687, 1, 1690, 1691, 1692, 1693, 1694, 1691],
     [1691, 1691, 1691, 1691, 1691, 1691, 1, 1695],
     [1695, 1695, 1, 1691, 1691, 1691, 1, 1696],
     [1696, 1697, 1696, 1696, 1696, 1696, 1696, 1696],
     [1696, 1696, 1, 1696, 1696, 1697, 1698, 1696],
     [1696, 1696, 1696, 1696, 1696, 1696, 1696, 1],
     [1699, 1699, 1699, 1, 1696, 1696, 1696, 1],
     [1700, 1698, 1701, 1702, 1698, 1698, 1698, 1698],
     [1698, 1698, 1698, 1698, 1, 1703, 1703, 1703],
     [1, 1698, 1698, 1698, 1, 1687, 1688, 1687],
     [1687, 1687, 1687, 1687, 1687, 1687, 1, 1680],
     [1681, 1682, 1683, 1684, 1685, 1704, 1681, 1681],
     [1704, 1681, 1681, 1681, 1681, 1681, 1, 1705],
     [1681, 1682, 1706, 1707, 1708, 1681, 1681, 1681],
     [1681, 1681, 1681, 1681, 1, 1680, 1709, 1710],
     [1709, 1687, 1687, 1683, 1689, 1685, 1687, 1687],
     [1711, 1709, 1687, 1709, 1709, 1709, 1709, 1],
     [1690, 1712, 1713, 1712, 1691, 1691, 1693, 1694],
     [1691, 1691, 1711, 1712, 1691, 1712, 1712, 1712],
     [1712, 1, 1206, 1711, 1711, 1711, 1715, 1716],
     [1711, 1711, 1711, 1714, 1714, 1711, 1711, 1714],
     [1711, 1, 1206, 1711, 1711, 1711, 1715, 1716],
     [1711, 1711, 1711, 1711, 1711, 1711, 1, 1206],
     [1711, 1711, 1711, 1715, 1716, 1711, 1711, 1711],
     [1712, 1712, 1711, 1711, 1712, 1711, 1, 1680],
     [1681, 1682, 1683, 1684, 1685, 1717, 1718, 1681],
     [1681, 1717, 1718, 1681, 1681, 1681, 1681, 1681],
     [1, 1719, 1681, 1682, 1720, 1721, 1722, 1681],
     [1681, 1681, 1681, 1681, 1681, 1681, 1, 1680],
     [1681, 1682, 1683, 1684, 1685, 1723, 1681, 1681],
     [1723, 1681, 1681, 1681, 1681, 1681, 1, 1680],
     [1681, 1682, 1683, 1684, 1685, 1724, 1681, 1681],
     [1724, 1681, 1681, 1681, 1681, 1681, 1, 1680],
     [1681, 1682, 1683, 1725, 1685, 1681, 1681, 1681],
     [1681, 1681, 1681, 1681, 1, 1680, 1726, 1727],
     [1726, 1687, 1687, 1683, 1689, 1685, 1687, 1687],
     [1728, 1726, 1687, 1726, 1726, 1726, 1726, 1],
     [1729, 1730, 1731, 1730, 1691, 1691, 1732, 1733],
     [1691, 1691, 1734, 1730, 1691, 1730, 1730, 1730],
     [1730, 1, 1735, 1734, 1734, 1734, 1737, 1738],
     [1734, 1734, 1734, 1736, 1736, 1734, 1734, 1736],
     [1734, 1, 1735, 1734, 1734, 1734, 1737, 1738],
     [1734, 1734, 1734, 1734, 1734, 1734, 1, 1735],
     [1734, 1734, 1734, 1737, 1738, 1734, 1734, 1734],
     [1730, 1730, 1734, 1734, 1730, 1734, 1, 1680],
     [1681, 1682, 1683, 1684, 1685, 1739, 1681, 1681],
     [1739, 1681, 1681, 1681, 1681, 1681, 1, 1680],
     [1681, 1682, 1683, 1684, 1685, 1740, 1681, 1681],
     [1740, 1681, 1681, 1681, 1681, 1681, 1, 1680],
     [1681, 1682, 1683, 1684, 1685, 1741, 1681, 1681],
     [1741, 1681, 1681, 1681, 1681, 1681, 1, 1680],
     [1681, 1682, 1683, 1684, 1685, 1742, 1681, 1681],
     [1742, 1681, 1681, 1681, 1681, 1681, 1, 1680],
     [1681, 1682, 1683, 1684, 1685, 1743, 1681, 1681],
     [1743, 1681, 1681, 1681, 1681, 1681, 1, 1680],
     [1681, 1682, 1683, 1684, 1685, 1744, 1681, 1681],
     [1744, 1681, 1681, 1681, 1681, 1681, 1, 1680],
     [1681, 1682, 1683, 1684, 1685, 1745, 1681, 1681],
     [1745, 1681, 1681, 1681, 1681, 1681, 1, 1680],
     [1681, 1682, 1683, 1684, 1685, 1746, 1681, 1681],
     [1746, 1681, 1681, 1681, 1681, 1681, 1, 1680],
     [1681, 1682, 1683, 1747, 1685, 1681, 1681, 1681],
     [1681, 1681, 1681, 1681, 1, 1680, 1748, 1749],
     [1748, 1687, 1687, 1683, 1689, 1685, 1750, 1751],
     [1752, 1753, 1687, 1687, 1754, 1750, 1751, 1752],
     [1753, 1748, 1687, 1748, 1748, 1748, 1748, 1],
     [1755, 1756, 1757, 1756, 1691, 1691, 1758, 1759],
     [1691, 1691, 1760, 1756, 1691, 1756, 1756, 1756],
     [1756, 1, 1761, 1760, 1760, 1760, 1763, 1764],
     [1760, 1760, 1760, 1762, 1762, 1760, 1760, 1762],
     [1760, 1, 1761, 1760, 1760, 1760, 1763, 1764],
     [1760, 1760, 1760, 1760, 1760, 1760, 1, 1761],
     [1760, 1760, 1760, 1763, 1764, 1760, 1760, 1760],
     [1756, 1756, 1760, 1760, 1756, 1760, 1, 1755],
     [1756, 1757, 1756, 1691, 1691, 1758, 1759, 1765],
     [1691, 1691, 1760, 1765, 1756, 1691, 1756, 1756],
     [1756, 1756, 1, 1755, 1756, 1757, 1756, 1691],
     [1691, 1758, 1759, 1766, 1691, 1691, 1760, 1766],
     [1756, 1691, 1756, 1756, 1756, 1756, 1, 1755],
     [1756, 1757, 1756, 1691, 1691, 1758, 1759, 1767],
     [1691, 1691, 1760, 1767, 1756, 1691, 1756, 1756],
     [1756, 1756, 1, 1768, 1756, 1757, 1756, 1691],
     [1691, 1769, 1770, 1691, 1691, 1760, 1756, 1691],
     [1756, 1756, 1756, 1756, 1, 1755, 1756, 1757],
     [1756, 1691, 1691, 1758, 1759, 1771, 1772, 1691],
     [1691, 1760, 1771, 1772, 1756, 1691, 1756, 1756],
     [1756, 1756, 1, 1755, 1756, 1757, 1756, 1691],
     [1691, 1758, 1759, 1773, 1691, 1691, 1760, 1773],
     [1756, 1691, 1756, 1756, 1756, 1756, 1, 1774],
     [1756, 1757, 1756, 1691, 1691, 1775, 1776, 1691],
     [1691, 1760, 1756, 1691, 1756, 1756, 1756, 1756],
     [1, 1755, 1756, 1757, 1756, 1691, 1691, 1758],
     [1759, 1777, 1691, 1691, 1760, 1777, 1756, 1691],
     [1756, 1756, 1756, 1756, 1, 1778, 1756, 1757],
     [1756, 1691, 1691, 1779, 1780, 1691, 1691, 1760],
     [1756, 1691, 1756, 1756, 1756, 1756, 1, 1755],
     [1756, 1757, 1756, 1691, 1691, 1758, 1759, 1781],
     [1691, 1691, 1760, 1781, 1756, 1691, 1756, 1756],
     [1756, 1756, 1, 1755, 1756, 1757, 1756, 1691],
     [1691, 1758, 1759, 1782, 1691, 1691, 1760, 1782],
     [1756, 1691, 1756, 1756, 1756, 1756, 1, 1783],
     [1756, 1757, 1756, 1691, 1691, 1784, 1785, 1691],
     [1691, 1760, 1756, 1691, 1756, 1756, 1756, 1756],
     [1, 1755, 1756, 1757, 1756, 1691, 1691, 1758],
     [1759, 1786, 1691, 1691, 1760, 1786, 1756, 1691],
     [1756, 1756, 1756, 1756, 1, 1787, 1756, 1757],
     [1756, 1691, 1691, 1788, 1789, 1790, 1691, 1691],
     [1760, 1790, 1756, 1691, 1756, 1756, 1756, 1756],
     [1, 1791, 1756, 1757, 1756, 1691, 1691, 1792],
     [1793, 1691, 1691, 1760, 1756, 1691, 1756, 1756],
     [1756, 1756, 1, 1672, 1673, 1674, 1671, 1],
     [1672, 1673, 1674, 1670, 1, 1672, 1673, 1674],
     [1794, 1, 1672, 1673, 1674, 1668, 1, 1672],
     [1795, 1673, 1674, 1794, 1668, 1, 1672, 1796],
     [1673, 1674, 1668, 1670, 1, 1672, 1797, 1673],
     [1674, 1670, 1671, 1, 1672, 1673, 1674, 1671],
     [1, 1798, 1799, 1800, 1801, 1656, 1656, 1],
     [1652, 1802, 1652, 1654, 1654, 1654, 1, 1803],
     [1804, 1805, 1806, 1656, 1656, 1, 1652, 1807],
     [1652, 1654, 1654, 1654, 1, 1808, 1809, 1810],
     [1811, 1656, 1656, 1, 1812, 1652, 1655, 1813],
     [1814, 1815, 1652, 1654, 1654, 1654, 1, 1812],
     [1652, 1655, 1813, 1814, 1815, 1652, 1811, 1654],
     [1654, 1, 1812, 1652, 1655, 1813, 1814, 1815],
     [1652, 1808, 1654, 1654, 1, 1812, 1652, 1655],
     [1816, 1813, 1814, 1815, 1652, 1811, 1808, 1654],
     [1654, 1, 1812, 1652, 1655, 1813, 1814, 1815]]"

definition sup_indicies_11 :: "int list list" where
  "sup_indicies_11 =
    [[1652, 1808, 1654, 1654, 1654, 1, 1652, 1807],
     [1652, 1806, 1654, 1654, 1, 1652, 1807, 1652],
     [1803, 1654, 1654, 1, 1652, 1807, 1817, 1652],
     [1806, 1803, 1654, 1654, 1, 1652, 1807, 1652],
     [1803, 1654, 1654, 1654, 1, 1652, 1802, 1652],
     [1801, 1654, 1654, 1, 1652, 1802, 1652, 1798],
     [1654, 1654, 1, 1652, 1802, 1818, 1652, 1801],
     [1798, 1654, 1654, 1, 1652, 1802, 1652, 1798],
     [1654, 1654, 1654, 1, 1652, 1653, 1652, 1819],
     [1654, 1654, 1, 1652, 1653, 1652, 1820, 1654],
     [1654, 1, 1652, 1653, 1821, 1652, 1819, 1820],
     [1654, 1654, 1, 1652, 1653, 1652, 1820, 1654],
     [1654, 1654, 1, 1823, 1822, 1822, 1822, 1],
     [1825, 1824, 1824, 1824, 1, 1825, 1826, 1826],
     [1826, 1, 1825, 1827, 1827, 1827, 1, 1825],
     [1, 1829, 1828, 1828, 1828, 1, 1831, 1830],
     [1830, 1830, 1, 1831, 1832, 1832, 1832, 1],
     [1831, 1833, 1833, 1833, 1, 1831, 1, 1835],
     [1834, 1834, 1834, 1, 1837, 1836, 1836, 1836],
     [1, 1837, 1838, 1838, 1838, 1, 1837, 1839],
     [1839, 1839, 1, 1837, 1, 1841, 1840, 1840],
     [1840, 1, 1843, 1842, 1842, 1842, 1, 1843],
     [1844, 1844, 1844, 1, 1843, 1845, 1845, 1845],
     [1, 1843, 1, 1847, 1846, 1846, 1846, 1],
     [1849, 1848, 1848, 1848, 1, 1849, 1850, 1850],
     [1850, 1, 1849, 1851, 1851, 1851, 1, 1849],
     [1, 1853, 1852, 1852, 1852, 1, 1855, 1854],
     [1854, 1854, 1, 1855, 1856, 1856, 1856, 1],
     [1855, 1857, 1857, 1857, 1, 1855, 1, 1858],
     [1859, 1860, 1862, 1861, 1863, 1863, 1, 1864],
     [1866, 1865, 1865, 1865, 1, 1867, 1868, 1869],
     [1870, 1, 1871, 1, 1872, 1873, 1874, 1875],
     [1, 1876, 1, 1877, 1878, 1879, 1880, 1],
     [1881, 1, 1882, 1883, 1884, 1885, 1, 1881],
     [1880, 1, 1881, 1877, 1, 1886, 1881, 1880],
     [1877, 1, 1881, 1877, 1, 1876, 1875, 1],
     [1876, 1872, 1, 1876, 1887, 1875, 1872, 1],
     [1876, 1872, 1, 1871, 1870, 1, 1871, 1867],
     [1, 1871, 1888, 1870, 1867, 1, 1871, 1867],
     [1, 1866, 1889, 1889, 1889, 1, 1866, 1890],
     [1890, 1890, 1, 1866, 1, 1877, 1891, 1891],
     [1891, 1, 1881, 1892, 1892, 1892, 1, 1881],
     [1893, 1893, 1893, 1, 1881, 1877, 1877, 1877],
     [1, 1864, 1866, 1894, 1865, 1865, 1, 1864],
     [1866, 1895, 1889, 1889, 1, 1864, 1866, 1890],
     [1890, 1890, 1, 1864, 1896, 1866, 1894, 1897],
     [1865, 1865, 1, 1864, 1866, 1895, 1889, 1889],
     [1889, 1, 1864, 1866, 1889, 1889, 1889, 1],
     [1864, 1866, 1897, 1865, 1865, 1, 1881, 1891],
     [1891, 1891, 1, 1866, 1865, 1865, 1865, 1],
     [1898, 1899, 1900, 1881, 1901, 1902, 1902, 1],
     [1864, 1904, 1881, 1903, 1903, 1903, 1, 1904],
     [1881, 1905, 1905, 1905, 1, 1904, 1881, 1906],
     [1906, 1906, 1, 1904, 1881, 1, 1891, 1891],
     [1891, 1, 1864, 1904, 1881, 1907, 1903, 1903],
     [1, 1864, 1904, 1881, 1908, 1905, 1905, 1],
     [1864, 1904, 1881, 1906, 1906, 1906, 1, 1864],
     [1909, 1904, 1881, 1907, 1910, 1903, 1903, 1],
     [1864, 1904, 1881, 1908, 1905, 1905, 1905, 1],
     [1864, 1904, 1881, 1905, 1905, 1905, 1, 1864],
     [1904, 1881, 1910, 1903, 1903, 1, 1904, 1881],
     [1903, 1903, 1903, 1, 1911, 1912, 1913, 1881],
     [1914, 1915, 1915, 1, 1864, 1917, 1881, 1916],
     [1916, 1916, 1, 1917, 1881, 1918, 1918, 1918],
     [1, 1917, 1881, 1919, 1919, 1919, 1, 1917],
     [1881, 1, 1898, 1899, 1900, 1901, 1902, 1902],
     [1, 1864, 1917, 1881, 1920, 1916, 1916, 1],
     [1864, 1917, 1881, 1921, 1918, 1918, 1, 1864],
     [1917, 1881, 1919, 1919, 1919, 1, 1864, 1922],
     [1917, 1881, 1920, 1923, 1916, 1916, 1, 1864],
     [1917, 1881, 1921, 1918, 1918, 1918, 1, 1864],
     [1917, 1881, 1918, 1918, 1918, 1, 1864, 1917],
     [1881, 1923, 1916, 1916, 1, 1917, 1881, 1916],
     [1916, 1916, 1, 1924, 1925, 1926, 1881, 1927],
     [1928, 1928, 1, 1864, 1930, 1881, 1929, 1929],
     [1929, 1, 1930, 1881, 1931, 1931, 1931, 1],
     [1930, 1881, 1932, 1932, 1932, 1, 1930, 1881],
     [1, 1911, 1912, 1913, 1914, 1915, 1915, 1],
     [1864, 1930, 1881, 1933, 1929, 1929, 1, 1864],
     [1930, 1881, 1934, 1931, 1931, 1, 1864, 1930],
     [1881, 1932, 1932, 1932, 1, 1864, 1935, 1930],
     [1881, 1933, 1936, 1929, 1929, 1, 1864, 1930],
     [1881, 1934, 1931, 1931, 1931, 1, 1864, 1930],
     [1881, 1931, 1931, 1931, 1, 1864, 1930, 1881],
     [1936, 1929, 1929, 1, 1930, 1881, 1929, 1929],
     [1929, 1, 1937, 1938, 1939, 1881, 1940, 1941],
     [1941, 1, 1864, 1943, 1881, 1942, 1942, 1942],
     [1, 1943, 1881, 1944, 1944, 1944, 1, 1943],
     [1881, 1945, 1945, 1945, 1, 1943, 1881, 1],
     [1924, 1925, 1926, 1927, 1928, 1928, 1, 1864],
     [1943, 1881, 1946, 1942, 1942, 1, 1864, 1943],
     [1881, 1947, 1944, 1944, 1, 1864, 1943, 1881],
     [1945, 1945, 1945, 1, 1864, 1948, 1943, 1881],
     [1946, 1949, 1942, 1942, 1, 1864, 1943, 1881],
     [1947, 1944, 1944, 1944, 1, 1864, 1943, 1881],
     [1944, 1944, 1944, 1, 1864, 1943, 1881, 1949],
     [1942, 1942, 1, 1943, 1881, 1942, 1942, 1942],
     [1, 1950, 1951, 1952, 1881, 1953, 1954, 1954],
     [1, 1864, 1956, 1881, 1955, 1955, 1955, 1],
     [1956, 1881, 1957, 1957, 1957, 1, 1956, 1881],
     [1958, 1958, 1958, 1, 1956, 1881, 1, 1937],
     [1938, 1939, 1940, 1941, 1941, 1, 1864, 1956],
     [1881, 1959, 1955, 1955, 1, 1864, 1956, 1881],
     [1960, 1957, 1957, 1, 1864, 1956, 1881, 1958],
     [1958, 1958, 1, 1864, 1961, 1956, 1881, 1959],
     [1962, 1955, 1955, 1, 1864, 1956, 1881, 1960],
     [1957, 1957, 1957, 1, 1864, 1956, 1881, 1957],
     [1957, 1957, 1, 1864, 1956, 1881, 1962, 1955],
     [1955, 1, 1956, 1881, 1955, 1955, 1955, 1],
     [1963, 1, 1964, 1965, 1966, 1881, 1967, 1968],
     [1968, 1, 1864, 1970, 1881, 1969, 1969, 1969],
     [1, 1970, 1881, 1971, 1971, 1971, 1, 1970],
     [1881, 1972, 1972, 1972, 1, 1970, 1881, 1],
     [1950, 1951, 1952, 1953, 1954, 1954, 1, 1864],
     [1970, 1881, 1973, 1969, 1969, 1, 1864, 1970],
     [1881, 1974, 1971, 1971, 1, 1864, 1970, 1881],
     [1972, 1972, 1972, 1, 1864, 1975, 1970, 1881],
     [1973, 1976, 1969, 1969, 1, 1864, 1970, 1881],
     [1974, 1971, 1971, 1971, 1, 1864, 1970, 1881],
     [1971, 1971, 1971, 1, 1864, 1970, 1881, 1976],
     [1969, 1969, 1, 1970, 1881, 1969, 1969, 1969],
     [1, 1640, 1641, 1977, 1978, 1642, 1640, 1640],
     [1640, 1643, 1977, 1640, 1640, 1979, 1979, 1979],
     [1, 1640, 1641, 1977, 1642, 1640, 1640, 1640],
     [1643, 1977, 1640, 1640, 1979, 1979, 1979, 1],
     [1640, 1641, 1977, 1980, 1642, 1640, 1640, 1640],
     [1643, 1977, 1640, 1640, 1979, 1979, 1979, 1],
     [1640, 1641, 1642, 1640, 1640, 1640, 1643, 1640],
     [1640, 1640, 1979, 1981, 1981, 1, 1657, 1640],
     [1641, 1982, 1983, 1984, 1985, 1640, 1986, 1643],
     [1982, 1640, 1640, 1981, 1981, 1981, 1, 1640],
     [1641, 1982, 1642, 1640, 1640, 1640, 1643, 1982],
     [1640, 1640, 1981, 1981, 1981, 1, 1657, 1640],
     [1641, 1984, 1985, 1640, 1986, 1643, 1640, 1640],
     [1640, 1979, 1981, 1981, 1, 1642, 1645, 1987],
     [1989, 1642, 1643, 1642, 1642, 1642, 1988, 1990],
     [1642, 1642, 1, 1642, 1645, 1991, 1642, 1643],
     [1642, 1642, 1642, 1992, 1642, 1642, 1, 1642],
     [1645, 1993, 1642, 1643, 1642, 1642, 1642, 1994],
     [1642, 1642, 1, 1642, 1645, 1642, 1642, 1643],
     [1642, 1642, 1642, 1995, 1642, 1642, 1, 1672],
     [1642, 1645, 1673, 1642, 1674, 1643, 1642, 1642],
     [1642, 1642, 1642, 1642, 1, 1672, 1642, 1645],
     [1673, 1642, 1674, 1643, 1642, 1642, 1642, 1995],
     [1642, 1642, 1, 1672, 1642, 1645, 1673, 1642],
     [1674, 1643, 1642, 1642, 1642, 1994, 1642, 1642],
     [1, 1672, 1642, 1645, 1673, 1642, 1674, 1643],
     [1642, 1642, 1642, 1996, 1642, 1642, 1, 1672],
     [1642, 1645, 1673, 1642, 1674, 1643, 1642, 1642],
     [1642, 1992, 1642, 1642, 1, 1672, 1642, 1645]]"

definition sup_indicies_12 :: "int list list" where
  "sup_indicies_12 =
    [[1997, 1673, 1642, 1674, 1643, 1642, 1642, 1642],
     [1996, 1992, 1642, 1642, 1, 1672, 1642, 1645],
     [1998, 1673, 1642, 1674, 1643, 1642, 1642, 1642],
     [1992, 1994, 1642, 1642, 1, 1672, 1642, 1645],
     [1999, 1673, 1642, 1674, 1643, 1642, 1642, 1642],
     [1994, 1995, 1642, 1642, 1, 1672, 1642, 1645],
     [1673, 1642, 1674, 1643, 1642, 1642, 1642, 1995],
     [1642, 1642, 1642, 1, 2000, 1640, 2001, 1640],
     [2002, 1640, 1640, 1640, 1643, 2003, 2004, 2005],
     [1675, 1675, 2000, 2003, 2004, 2005, 2000, 2000],
     [2000, 2000, 1, 1680, 2006, 1640, 2007, 1640],
     [2008, 2009, 2010, 2011, 1643, 1681, 1681, 2006],
     [2006, 2006, 2006, 2006, 1, 2012, 2012, 2012],
     [1, 2006, 2006, 2006, 1, 1680, 2008, 2013],
     [1642, 1681, 1681, 1683, 2014, 1685, 1643, 1681],
     [1681, 2008, 2008, 2008, 2008, 2008, 1, 2015],
     [2015, 2015, 1, 2008, 2008, 2008, 1, 1680],
     [2016, 2017, 1642, 1687, 1687, 1683, 2018, 1685],
     [1643, 1687, 1687, 2016, 2016, 2016, 2016, 2016],
     [1, 1690, 2019, 2020, 1642, 1691, 1691, 1693],
     [1642, 1694, 1643, 1691, 1691, 2019, 2019, 2019],
     [2019, 2019, 1, 2021, 2021, 2021, 1, 2019],
     [2019, 2019, 1, 2016, 2017, 1642, 1687, 1687],
     [1642, 1643, 1687, 1687, 2016, 2016, 2016, 2016],
     [2016, 1, 1680, 2022, 1640, 2023, 1640, 2016],
     [2009, 2024, 2011, 1643, 1687, 1687, 2022, 2022],
     [2022, 2022, 2022, 1, 1690, 2025, 1640, 2026],
     [1640, 2019, 2027, 1640, 2028, 1643, 1691, 1691],
     [2025, 2025, 2025, 2025, 2025, 1, 2029, 2029],
     [2029, 1, 2025, 2025, 2025, 1, 2030, 2030],
     [2031, 1640, 2032, 1640, 1640, 1643, 1696, 1696],
     [2030, 2030, 1640, 2030, 2030, 2030, 1, 2030],
     [2030, 2031, 1640, 2032, 1640, 2033, 1643, 1696],
     [1696, 2030, 2030, 1640, 2030, 2030, 2030, 1],
     [2034, 2034, 2034, 1, 2030, 2030, 2030, 1],
     [2032, 2035, 1642, 1642, 1696, 1696, 2036, 1696],
     [1643, 1696, 1696, 2032, 2032, 2032, 2032, 2032],
     [1, 2037, 2037, 2037, 1, 2032, 2032, 2032],
     [1, 1700, 2036, 2038, 2039, 1642, 1698, 1698],
     [1642, 1698, 1643, 1698, 1698, 2036, 2036, 2036],
     [2036, 2036, 1, 2040, 2040, 2040, 1, 2036],
     [2036, 2036, 1, 2032, 2035, 1642, 1642, 1696],
     [1696, 1642, 1696, 1643, 1696, 1696, 2032, 2032],
     [2032, 2032, 2032, 1, 1700, 2033, 1640, 2041],
     [2042, 1640, 2036, 1640, 1640, 1643, 1698, 1698],
     [2033, 2033, 2033, 2033, 2033, 1, 2043, 2043],
     [2043, 1, 2033, 2033, 2033, 1, 2022, 1640],
     [2023, 1640, 2016, 1640, 1640, 1640, 1643, 1687],
     [1687, 2022, 2022, 2022, 2022, 2022, 1, 1680],
     [2006, 1640, 2007, 1640, 2008, 2009, 2010, 2011],
     [1643, 2044, 1681, 1681, 2006, 2044, 2006, 2006],
     [2006, 2006, 1, 1705, 2006, 1640, 2007, 1640],
     [2008, 2045, 2046, 2047, 1643, 1681, 1681, 2006],
     [2006, 2006, 2006, 2006, 1, 1680, 2048, 1640],
     [2049, 2048, 1640, 2022, 2016, 2009, 2024, 2011],
     [1643, 1687, 1687, 1711, 2048, 2022, 2048, 2048],
     [2048, 1, 1690, 2050, 1640, 2051, 2050, 1640],
     [2025, 2019, 2027, 1640, 2028, 1643, 1691, 1691],
     [1711, 2050, 2025, 2050, 2050, 2050, 1, 1206],
     [1711, 1711, 1711, 1715, 1716, 1711, 1711, 1711],
     [2052, 2052, 1711, 1711, 2052, 1711, 1, 1206],
     [1711, 1711, 1711, 1715, 1716, 1711, 1711, 1711],
     [2050, 2050, 1711, 1711, 2050, 1711, 1, 1680],
     [2006, 1640, 2007, 1640, 2008, 2009, 2010, 2011],
     [1643, 2053, 2054, 1681, 1681, 2006, 2053, 2054],
     [2006, 2006, 2006, 2006, 1, 1719, 2006, 1640],
     [2007, 1640, 2008, 2055, 2056, 2057, 1643, 1681],
     [1681, 2006, 2006, 2006, 2006, 2006, 1, 1680],
     [2006, 1640, 2007, 1640, 2008, 2009, 2010, 2011],
     [1643, 2058, 1681, 1681, 2006, 2058, 2006, 2006],
     [2006, 2006, 1, 1680, 2006, 1640, 2007, 1640],
     [2008, 2009, 2010, 2011, 1643, 2059, 1681, 1681],
     [2006, 2059, 2006, 2006, 2006, 2006, 1, 1680],
     [2006, 1640, 2007, 1640, 2008, 2009, 2060, 2011],
     [1643, 1681, 1681, 2006, 2006, 2006, 2006, 2006],
     [1, 1680, 2061, 1640, 2062, 2061, 1640, 2022],
     [2016, 2009, 2024, 2011, 1643, 1687, 1687, 1728],
     [2061, 2022, 2061, 2061, 2061, 1, 1729, 2063],
     [1640, 2064, 2063, 1640, 2025, 2019, 2065, 1640],
     [2066, 1643, 1691, 1691, 1734, 2063, 2025, 2063],
     [2063, 2063, 1, 1735, 1734, 1734, 1734, 1737],
     [1738, 1734, 1734, 1734, 2067, 2067, 1734, 1734],
     [2067, 1734, 1, 1735, 1734, 1734, 1734, 1737],
     [1738, 1734, 1734, 1734, 2063, 2063, 1734, 1734],
     [2063, 1734, 1, 1680, 2006, 1640, 2007, 1640],
     [2008, 2009, 2010, 2011, 1643, 2068, 1681, 1681],
     [2006, 2068, 2006, 2006, 2006, 2006, 1, 1680],
     [2006, 1640, 2007, 1640, 2008, 2009, 2010, 2011],
     [1643, 2069, 1681, 1681, 2006, 2069, 2006, 2006],
     [2006, 2006, 1, 1680, 2006, 1640, 2007, 1640],
     [2008, 2009, 2010, 2011, 1643, 2070, 1681, 1681],
     [2006, 2070, 2006, 2006, 2006, 2006, 1, 1680],
     [2006, 1640, 2007, 1640, 2008, 2009, 2010, 2011],
     [1643, 2071, 1681, 1681, 2006, 2071, 2006, 2006],
     [2006, 2006, 1, 1680, 2006, 1640, 2007, 1640],
     [2008, 2009, 2010, 2011, 1643, 2072, 1681, 1681],
     [2006, 2072, 2006, 2006, 2006, 2006, 1, 1680],
     [2006, 1640, 2007, 1640, 2008, 2009, 2010, 2011],
     [1643, 2073, 1681, 1681, 2006, 2073, 2006, 2006],
     [2006, 2006, 1, 1680, 2006, 1640, 2007, 1640],
     [2008, 2009, 2010, 2011, 1643, 2074, 1681, 1681],
     [2006, 2074, 2006, 2006, 2006, 2006, 1, 1680],
     [2006, 1640, 2007, 1640, 2008, 2009, 2010, 2011],
     [1643, 2075, 1681, 1681, 2006, 2075, 2006, 2006],
     [2006, 2006, 1, 1680, 2006, 1640, 2007, 1640],
     [2008, 2009, 2076, 2011, 1643, 1681, 1681, 2006],
     [2006, 2006, 2006, 2006, 1, 1680, 2077, 1640],
     [2078, 2077, 1640, 2022, 2016, 2009, 2024, 2011],
     [1643, 2079, 2080, 2081, 2082, 1687, 1687, 1754],
     [2079, 2080, 2081, 2082, 2077, 2022, 2077, 2077],
     [2077, 1, 1755, 2083, 1640, 2084, 2083, 1640],
     [2025, 2019, 2085, 1640, 2086, 1643, 1691, 1691],
     [1760, 2083, 2025, 2083, 2083, 2083, 1, 1761],
     [1760, 1760, 1760, 1763, 1764, 1760, 1760, 1760],
     [2087, 2087, 1760, 1760, 2087, 1760, 1, 1761],
     [1760, 1760, 1760, 1763, 1764, 1760, 1760, 1760],
     [2083, 2083, 1760, 1760, 2083, 1760, 1, 1755],
     [2083, 1640, 2084, 2083, 1640, 2025, 2019, 2085],
     [1640, 2086, 1643, 2088, 1691, 1691, 1760, 2088],
     [2083, 2025, 2083, 2083, 2083, 1, 1755, 2083],
     [1640, 2084, 2083, 1640, 2025, 2019, 2085, 1640],
     [2086, 1643, 2089, 1691, 1691, 1760, 2089, 2083],
     [2025, 2083, 2083, 2083, 1, 1755, 2083, 1640],
     [2084, 2083, 1640, 2025, 2019, 2085, 1640, 2086],
     [1643, 2090, 1691, 1691, 1760, 2090, 2083, 2025],
     [2083, 2083, 2083, 1, 1768, 2083, 1640, 2084],
     [2083, 1640, 2025, 2019, 2091, 1640, 2092, 1643],
     [1691, 1691, 1760, 2083, 2025, 2083, 2083, 2083],
     [1, 1755, 2083, 1640, 2084, 2083, 1640, 2025],
     [2019, 2085, 1640, 2086, 1643, 2093, 2094, 1691],
     [1691, 1760, 2093, 2094, 2083, 2025, 2083, 2083],
     [2083, 1, 1755, 2083, 1640, 2084, 2083, 1640],
     [2025, 2019, 2085, 1640, 2086, 1643, 2095, 1691],
     [1691, 1760, 2095, 2083, 2025, 2083, 2083, 2083],
     [1, 1774, 2083, 1640, 2084, 2083, 1640, 2025],
     [2019, 2096, 1640, 2097, 1643, 1691, 1691, 1760],
     [2083, 2025, 2083, 2083, 2083, 1, 1755, 2083],
     [1640, 2084, 2083, 1640, 2025, 2019, 2085, 1640],
     [2086, 1643, 2098, 1691, 1691, 1760, 2098, 2083],
     [2025, 2083, 2083, 2083, 1, 1778, 2083, 1640],
     [2084, 2083, 1640, 2025, 2019, 2099, 1640, 2100],
     [1643, 1691, 1691, 1760, 2083, 2025, 2083, 2083],
     [2083, 1, 1755, 2083, 1640, 2084, 2083, 1640],
     [2025, 2019, 2085, 1640, 2086, 1643, 2101, 1691],
     [1691, 1760, 2101, 2083, 2025, 2083, 2083, 2083],
     [1, 1755, 2083, 1640, 2084, 2083, 1640, 2025],
     [2019, 2085, 1640, 2086, 1643, 2102, 1691, 1691],
     [1760, 2102, 2083, 2025, 2083, 2083, 2083, 1],
     [1783, 2083, 1640, 2084, 2083, 1640, 2025, 2019],
     [2103, 1640, 2104, 1643, 1691, 1691, 1760, 2083]]"

definition sup_indicies_13 :: "int list list" where
  "sup_indicies_13 =
    [[2025, 2083, 2083, 2083, 1, 1755, 2083, 1640],
     [2084, 2083, 1640, 2025, 2019, 2085, 1640, 2086],
     [1643, 2105, 1691, 1691, 1760, 2105, 2083, 2025],
     [2083, 2083, 2083, 1, 1787, 2083, 1640, 2084],
     [2083, 1640, 2025, 2019, 2106, 1640, 2107, 1643],
     [2108, 1691, 1691, 1760, 2108, 2083, 2025, 2083],
     [2083, 2083, 1, 1791, 2083, 1640, 2084, 2083],
     [1640, 2025, 2019, 2109, 1640, 2110, 1643, 1691],
     [1691, 1760, 2083, 2025, 2083, 2083, 2083, 1],
     [1640, 1641, 2111, 2112, 2113, 1642, 1640, 1640],
     [1640, 1643, 1640, 1640, 1640, 2114, 1981, 1981],
     [1, 1640, 1641, 1977, 2115, 1642, 1640, 1640],
     [1640, 1643, 1977, 1640, 1640, 1979, 1979, 1979],
     [1, 1640, 1641, 2116, 2117, 2118, 1642, 1640],
     [1640, 1640, 1643, 1640, 1640, 1640, 2119, 1981],
     [1981, 1, 1640, 1641, 1977, 2120, 1642, 1640],
     [1640, 1640, 1643, 1977, 1640, 1640, 1979, 1979],
     [1979, 1, 1640, 1641, 2121, 2122, 2123, 1642],
     [1640, 1640, 1640, 1643, 1640, 1640, 1640, 2124],
     [1981, 1981, 1, 1812, 1640, 1641, 1977, 1980],
     [2125, 2126, 1640, 2127, 1643, 1977, 1640, 1640],
     [1979, 1979, 1979, 1, 1812, 1640, 1641, 1977],
     [1980, 2125, 2126, 1640, 2127, 1643, 1977, 1640],
     [1640, 2124, 1979, 1979, 1, 1812, 1640, 1641],
     [1977, 1980, 2125, 2126, 1640, 2127, 1643, 1977],
     [1640, 1640, 2121, 1979, 1979, 1, 1812, 1640],
     [1641, 1977, 1980, 2128, 2125, 2126, 1640, 2127],
     [1643, 1977, 1640, 1640, 2124, 2121, 1979, 1979],
     [1, 1812, 1640, 1641, 1977, 1980, 2125, 2126],
     [1640, 2127, 1643, 1977, 1640, 1640, 2121, 1979],
     [1979, 1979, 1, 1640, 1641, 1977, 2120, 1642],
     [1640, 1640, 1640, 1643, 1977, 1640, 1640, 2119],
     [1979, 1979, 1, 1640, 1641, 1977, 2120, 1642],
     [1640, 1640, 1640, 1643, 1977, 1640, 1640, 2116],
     [1979, 1979, 1, 1640, 1641, 1977, 2120, 2129],
     [1642, 1640, 1640, 1640, 1643, 1977, 1640, 1640],
     [2119, 2116, 1979, 1979, 1, 1640, 1641, 1977],
     [2120, 1642, 1640, 1640, 1640, 1643, 1977, 1640],
     [1640, 2116, 1979, 1979, 1979, 1, 1640, 1641],
     [1977, 2115, 1642, 1640, 1640, 1640, 1643, 1977],
     [1640, 1640, 2114, 1979, 1979, 1, 1640, 1641],
     [1977, 2115, 1642, 1640, 1640, 1640, 1643, 1977],
     [1640, 1640, 2111, 1979, 1979, 1, 1640, 1641],
     [1977, 2115, 2130, 1642, 1640, 1640, 1640, 1643],
     [1977, 1640, 1640, 2114, 2111, 1979, 1979, 1],
     [1640, 1641, 1977, 2115, 1642, 1640, 1640, 1640],
     [1643, 1977, 1640, 1640, 2111, 1979, 1979, 1979],
     [1, 1640, 1641, 1977, 1978, 1642, 1640, 1640],
     [1640, 1643, 1977, 1640, 1640, 2131, 1979, 1979],
     [1, 1640, 1641, 1977, 1978, 1642, 1640, 1640],
     [1640, 1643, 1977, 1640, 1640, 2132, 1979, 1979],
     [1, 1640, 1641, 1977, 1978, 2133, 1642, 1640],
     [1640, 1640, 1643, 1977, 1640, 1640, 2131, 2132],
     [1979, 1979, 1, 1640, 1641, 1977, 1978, 1642],
     [1640, 1640, 1640, 1643, 1977, 1640, 1640, 2132],
     [1979, 1979, 1979, 1, 1204, 2134, 1204, 1204],
     [1204, 1204, 1, 1204, 1205, 2135, 2135, 1204],
     [1204, 1204, 1204, 1, 1204, 1205, 2136, 2136],
     [1204, 1204, 1204, 1204, 1, 1204, 2137, 1204],
     [1204, 1204, 1204, 1, 2138, 2138, 2140, 2139],
     [2139, 2138, 2138, 2138, 1, 2141, 2142, 2143],
     [2142, 2142, 2142, 2142, 2142, 1, 2144, 2145],
     [2145, 2144, 2144, 2144, 1, 1680, 2146, 2147],
     [2148, 2146, 2146, 2146, 1, 2149, 2150, 2149],
     [2149, 2149, 2149, 2149, 2149, 2149, 1, 1690],
     [2151, 2152, 2153, 2151, 2151, 2151, 2151, 2151],
     [2151, 2151, 1, 2154, 2154, 2154, 1, 2151],
     [2151, 2151, 1, 1680, 2146, 2147, 2148, 2155],
     [2155, 2146, 2146, 2146, 1, 1680, 2146, 2147],
     [2148, 2156, 2156, 2146, 2146, 2146, 1, 1680],
     [2146, 2147, 2148, 2157, 2157, 2146, 2146, 2146],
     [1, 1680, 2146, 2147, 2148, 2158, 2158, 2146],
     [2146, 2146, 1, 1680, 2159, 2147, 2148, 2146],
     [2146, 2146, 1, 1680, 2146, 2147, 2148, 2160],
     [2160, 2146, 2146, 2146, 1, 1680, 2146, 2147],
     [2148, 2161, 2161, 2146, 2146, 2146, 1, 1680],
     [2146, 2147, 2148, 2162, 2162, 2146, 2146, 2146],
     [1, 1680, 2146, 2147, 2148, 2163, 2163, 2146],
     [2146, 2146, 1, 1680, 2146, 2147, 2148, 2164],
     [2164, 2146, 2146, 2146, 1, 1680, 2146, 2147],
     [2148, 2165, 2165, 2146, 2146, 2146, 1, 1680],
     [2146, 2147, 2148, 2166, 2166, 2146, 2146, 2146],
     [1, 1680, 2146, 2147, 2167, 2146, 2146, 2146],
     [1, 2149, 2150, 2168, 2149, 2149, 2149, 2149],
     [2149, 2149, 2149, 2169, 2170, 2170, 1, 1690],
     [2151, 2152, 2151, 2151, 2153, 2151, 2151, 2151],
     [2151, 2171, 2151, 2171, 2172, 2151, 2151, 1],
     [2173, 2151, 2152, 2151, 2151, 2174, 2151, 2151],
     [2151, 2151, 2172, 2151, 2172, 2151, 2151, 1],
     [1690, 2151, 2152, 2175, 2176, 2151, 2151, 2153],
     [2151, 2151, 2175, 2151, 2151, 2177, 2177, 2177],
     [1, 1690, 2151, 2152, 2175, 2151, 2153, 2151],
     [2151, 2175, 2151, 2151, 2151, 2177, 2177, 2177],
     [1, 1690, 2151, 2152, 2151, 2153, 2151, 2151],
     [2151, 2151, 2151, 2151, 2177, 2178, 2178, 1],
     [2173, 2151, 2152, 2179, 2180, 2151, 2151, 2174],
     [2151, 2151, 2179, 2151, 2151, 2178, 2178, 2178],
     [1, 1690, 2151, 2152, 2179, 2151, 2153, 2151],
     [2151, 2179, 2151, 2151, 2151, 2178, 2178, 2178],
     [1, 2173, 2151, 2152, 2151, 2174, 2151, 2151],
     [2151, 2151, 2151, 2151, 2177, 2178, 2178, 1],
     [2142, 2142, 2181, 2181, 2142, 2142, 2142, 1],
     [2182, 2182, 2183, 1, 2141, 2143, 2183, 2183],
     [2183, 1, 1184, 1185, 1184, 1186, 1186, 1186],
     [1186, 2184, 2185, 1187, 1186, 2184, 2184, 2184],
     [1186, 2184, 1, 1206, 2186, 2187, 2186, 2188],
     [2189, 2190, 2191, 2192, 2193, 2188, 2192, 2194],
     [2188, 2188, 2188, 2188, 2188, 2188, 1, 1206],
     [2186, 2187, 2186, 2188, 2189, 2190, 2195, 2193],
     [2188, 2196, 2188, 2188, 2188, 2188, 2188, 2188],
     [1, 2189, 2197, 2198, 2189, 2199, 2189, 2189],
     [2189, 2189, 2189, 2189, 1, 2200, 2200, 2200],
     [1, 2189, 2189, 2189, 1, 2198, 2201, 2198],
     [2199, 2198, 2198, 2198, 2198, 2198, 2198, 2198],
     [1, 2202, 2202, 2202, 1, 2198, 2198, 2198],
     [1, 2203, 2204, 2205, 2194, 2206, 2207, 2207],
     [1, 2208, 2209, 2208, 2210, 2210, 2210, 1],
     [2208, 2208, 2210, 2210, 2210, 1, 2208, 2211],
     [2208, 2210, 2210, 2210, 1, 2210, 2207, 2207],
     [1, 1206, 2186, 2187, 2186, 2212, 2213, 2214],
     [2193, 2212, 2207, 2207, 2207, 1, 2212, 2212],
     [2207, 2207, 2207, 1, 1206, 2186, 2187, 2186],
     [2214, 2193, 2210, 2207, 2207, 1, 2215, 2217],
     [2216, 2218, 1, 2219, 2220, 1, 2221, 2222],
     [1, 2223, 1, 1206, 2186, 2187, 2186, 2193],
     [1, 1206, 2186, 2187, 2186, 2193, 2223, 1],
     [1206, 2186, 2187, 2186, 2193, 2222, 1, 1206],
     [2186, 2187, 2186, 2193, 2218, 1, 1206, 2186],
     [2187, 2186, 2193, 2220, 1, 1206, 2186, 2187],
     [2186, 2224, 2193, 2218, 2220, 1, 1206, 2186],
     [2187, 2186, 2225, 2193, 2220, 2222, 1, 1206],
     [2186, 2187, 2186, 2226, 2193, 2222, 2223, 1],
     [1206, 2186, 2187, 2186, 2193, 2223, 1, 2227],
     [2228, 2229, 2230, 2207, 2207, 1, 2208, 2231],
     [2208, 2210, 2210, 2210, 1, 2232, 2233, 2234],
     [2235, 2207, 2207, 1, 2208, 2236, 2208, 2210],
     [2210, 2210, 1, 2237, 2238, 2239, 2240, 2207],
     [2207, 1, 1206, 2186, 2187, 2186, 2208, 2211],
     [2214, 2193, 2208, 2210, 2210, 2210, 1, 1206],
     [2186, 2187, 2186, 2208, 2211, 2214, 2193, 2208],
     [2240, 2210, 2210, 1, 1206, 2186, 2187, 2186],
     [2208, 2211, 2214, 2193, 2208, 2237, 2210, 2210],
     [1, 1206, 2186, 2187, 2186, 2208, 2211, 2241],
     [2214, 2193, 2208, 2240, 2237, 2210, 2210, 1],
     [1206, 2186, 2187, 2186, 2208, 2211, 2214, 2193],
     [2208, 2237, 2210, 2210, 2210, 1, 2208, 2236],
     [2208, 2235, 2210, 2210, 1, 2208, 2236, 2208],
     [2232, 2210, 2210, 1, 2208, 2236, 2242, 2208],
     [2235, 2232, 2210, 2210, 1, 2208, 2236, 2208],
     [2232, 2210, 2210, 2210, 1, 2208, 2231, 2208]]"

definition sup_indicies_14 :: "int list list" where
  "sup_indicies_14 =
    [[2230, 2210, 2210, 1, 2208, 2231, 2208, 2227],
     [2210, 2210, 1, 2208, 2231, 2243, 2208, 2230],
     [2227, 2210, 2210, 1, 2208, 2231, 2208, 2227],
     [2210, 2210, 2210, 1, 2208, 2209, 2208, 2206],
     [2210, 2210, 1, 2208, 2209, 2208, 2203, 2210],
     [2210, 1, 2208, 2209, 2244, 2208, 2206, 2203],
     [2210, 2210, 1, 2208, 2209, 2208, 2203, 2210],
     [2210, 2210, 1, 2246, 2245, 2245, 2245, 1],
     [2248, 2247, 2247, 2247, 1, 2248, 2249, 2249],
     [2249, 1, 2248, 2250, 2250, 2250, 1, 2248],
     [1, 2252, 2251, 2251, 2251, 1, 2254, 2253],
     [2253, 2253, 1, 2254, 2255, 2255, 2255, 1],
     [2254, 2256, 2256, 2256, 1, 2254, 1, 2258],
     [2257, 2257, 2257, 1, 2260, 2259, 2259, 2259],
     [1, 2260, 2261, 2261, 2261, 1, 2260, 2262],
     [2262, 2262, 1, 2260, 1, 2264, 2263, 2263],
     [2263, 1, 2266, 2265, 2265, 2265, 1, 2266],
     [2267, 2267, 2267, 1, 2266, 2268, 2268, 2268],
     [1, 2266, 1, 2270, 2269, 2269, 2269, 1],
     [2272, 2271, 2271, 2271, 1, 2272, 2273, 2273],
     [2273, 1, 2272, 2274, 2274, 2274, 1, 2272],
     [1, 2276, 2275, 2275, 2275, 1, 2278, 2277],
     [2277, 2277, 1, 2278, 2279, 2279, 2279, 1],
     [2278, 2280, 2280, 2280, 1, 2278, 1, 2281],
     [2282, 2283, 2285, 2284, 2286, 2286, 1, 2287],
     [2289, 2288, 2288, 2288, 1, 2290, 2291, 2292],
     [2293, 1, 2294, 1, 2295, 2296, 2297, 2298],
     [1, 2299, 1, 2300, 2301, 2302, 2303, 1],
     [2304, 1, 1206, 2186, 2187, 2186, 2214, 2193],
     [1, 2304, 2303, 1, 2304, 2300, 1, 2305],
     [2304, 2303, 2300, 1, 2304, 2300, 1, 2299],
     [2298, 1, 2299, 2295, 1, 2299, 2306, 2298],
     [2295, 1, 2299, 2295, 1, 2294, 2293, 1],
     [2294, 2290, 1, 2294, 2307, 2293, 2290, 1],
     [2294, 2290, 1, 2289, 2308, 2308, 2308, 1],
     [2289, 2309, 2309, 2309, 1, 2289, 1, 2300],
     [2310, 2310, 2310, 1, 2304, 2311, 2311, 2311],
     [1, 2304, 2312, 2312, 2312, 1, 2304, 2300],
     [2300, 2300, 1, 2287, 2289, 2313, 2288, 2288],
     [1, 2287, 2289, 2314, 2308, 2308, 1, 2287],
     [2289, 2309, 2309, 2309, 1, 2287, 2315, 2289],
     [2313, 2316, 2288, 2288, 1, 2287, 2289, 2314],
     [2308, 2308, 2308, 1, 2287, 2289, 2308, 2308],
     [2308, 1, 2287, 2289, 2316, 2288, 2288, 1],
     [2304, 2310, 2310, 2310, 1, 2289, 2288, 2288],
     [2288, 1, 2317, 2318, 2319, 2304, 2320, 2321],
     [2321, 1, 2287, 2323, 2304, 2322, 2322, 2322],
     [1, 2323, 2304, 2324, 2324, 2324, 1, 2323],
     [2304, 2325, 2325, 2325, 1, 2323, 2304, 1],
     [2310, 2310, 2310, 1, 2287, 2323, 2304, 2326],
     [2322, 2322, 1, 2287, 2323, 2304, 2327, 2324],
     [2324, 1, 2287, 2323, 2304, 2325, 2325, 2325],
     [1, 2287, 2328, 2323, 2304, 2326, 2329, 2322],
     [2322, 1, 2287, 2323, 2304, 2327, 2324, 2324],
     [2324, 1, 2287, 2323, 2304, 2324, 2324, 2324],
     [1, 2287, 2323, 2304, 2329, 2322, 2322, 1],
     [2323, 2304, 2322, 2322, 2322, 1, 2330, 2331],
     [2332, 2304, 2333, 2334, 2334, 1, 2287, 2336],
     [2304, 2335, 2335, 2335, 1, 2336, 2304, 2337],
     [2337, 2337, 1, 2336, 2304, 2338, 2338, 2338],
     [1, 2336, 2304, 1, 2317, 2318, 2319, 2320],
     [2321, 2321, 1, 2287, 2336, 2304, 2339, 2335],
     [2335, 1, 2287, 2336, 2304, 2340, 2337, 2337],
     [1, 2287, 2336, 2304, 2338, 2338, 2338, 1],
     [2287, 2341, 2336, 2304, 2339, 2342, 2335, 2335],
     [1, 2287, 2336, 2304, 2340, 2337, 2337, 2337],
     [1, 2287, 2336, 2304, 2337, 2337, 2337, 1],
     [2287, 2336, 2304, 2342, 2335, 2335, 1, 2336],
     [2304, 2335, 2335, 2335, 1, 2343, 2344, 2345],
     [2304, 2346, 2347, 2347, 1, 2287, 2349, 2304],
     [2348, 2348, 2348, 1, 2349, 2304, 2350, 2350],
     [2350, 1, 2349, 2304, 2351, 2351, 2351, 1],
     [2349, 2304, 1, 2330, 2331, 2332, 2333, 2334],
     [2334, 1, 2287, 2349, 2304, 2352, 2348, 2348],
     [1, 2287, 2349, 2304, 2353, 2350, 2350, 1],
     [2287, 2349, 2304, 2351, 2351, 2351, 1, 2287],
     [2354, 2349, 2304, 2352, 2355, 2348, 2348, 1],
     [2287, 2349, 2304, 2353, 2350, 2350, 2350, 1],
     [2287, 2349, 2304, 2350, 2350, 2350, 1, 2287],
     [2349, 2304, 2355, 2348, 2348, 1, 2349, 2304],
     [2348, 2348, 2348, 1, 2356, 2357, 2358, 2304],
     [2359, 2360, 2360, 1, 2287, 2362, 2304, 2361],
     [2361, 2361, 1, 2362, 2304, 2363, 2363, 2363],
     [1, 2362, 2304, 2364, 2364, 2364, 1, 2362],
     [2304, 1, 2343, 2344, 2345, 2346, 2347, 2347],
     [1, 2287, 2362, 2304, 2365, 2361, 2361, 1],
     [2287, 2362, 2304, 2366, 2363, 2363, 1, 2287],
     [2362, 2304, 2364, 2364, 2364, 1, 2287, 2367],
     [2362, 2304, 2365, 2368, 2361, 2361, 1, 2287],
     [2362, 2304, 2366, 2363, 2363, 2363, 1, 2287],
     [2362, 2304, 2363, 2363, 2363, 1, 2287, 2362],
     [2304, 2368, 2361, 2361, 1, 2362, 2304, 2361],
     [2361, 2361, 1, 2369, 2370, 2371, 2304, 2372],
     [2373, 2373, 1, 2287, 2375, 2304, 2374, 2374],
     [2374, 1, 2375, 2304, 2376, 2376, 2376, 1],
     [2375, 2304, 2377, 2377, 2377, 1, 2375, 2304],
     [1, 2356, 2357, 2358, 2359, 2360, 2360, 1],
     [2287, 2375, 2304, 2378, 2374, 2374, 1, 2287],
     [2375, 2304, 2379, 2376, 2376, 1, 2287, 2375],
     [2304, 2377, 2377, 2377, 1, 2287, 2380, 2375],
     [2304, 2378, 2381, 2374, 2374, 1, 2287, 2375],
     [2304, 2379, 2376, 2376, 2376, 1, 2287, 2375],
     [2304, 2376, 2376, 2376, 1, 2287, 2375, 2304],
     [2381, 2374, 2374, 1, 2375, 2304, 2374, 2374],
     [2374, 1, 2382, 1, 2383, 2384, 2385, 2304],
     [2386, 2387, 2387, 1, 2287, 2389, 2304, 2388],
     [2388, 2388, 1, 2389, 2304, 2390, 2390, 2390],
     [1, 2389, 2304, 2391, 2391, 2391, 1, 2389],
     [2304, 1, 2369, 2370, 2371, 2372, 2373, 2373],
     [1, 2287, 2389, 2304, 2392, 2388, 2388, 1],
     [2287, 2389, 2304, 2393, 2390, 2390, 1, 2287],
     [2389, 2304, 2391, 2391, 2391, 1, 2287, 2394],
     [2389, 2304, 2392, 2395, 2388, 2388, 1, 2287],
     [2389, 2304, 2393, 2390, 2390, 2390, 1, 2287],
     [2389, 2304, 2390, 2390, 2390, 1, 2287, 2389],
     [2304, 2395, 2388, 2388, 1, 2389, 2304, 2388],
     [2388, 2388, 1, 2396, 2396, 2396, 1, 2188],
     [2188, 2188, 1, 1206, 2186, 2187, 2186, 2195],
     [2397, 2192, 2192, 2193, 2195, 2196, 2195, 2195],
     [2195, 2195, 2195, 2195, 1, 2398, 2398, 2398],
     [1, 2195, 2195, 2195, 1, 1206, 2186, 2187],
     [2186, 2192, 2399, 2193, 2192, 2192, 2192, 2192],
     [2192, 2192, 2192, 1, 2400, 2400, 2400, 1],
     [2192, 2192, 2192, 1, 1206, 2186, 2187, 2186],
     [2192, 2399, 2193, 2192, 2194, 2192, 2192, 2192],
     [2192, 2192, 2192, 1, 1206, 2186, 2187, 2186],
     [2188, 2189, 2190, 2401, 2195, 2193, 2188, 2196],
     [2188, 2188, 2188, 2188, 2188, 2188, 1, 1206],
     [2186, 2187, 2186, 2402, 2403, 2404, 2195, 2193],
     [2402, 2196, 2405, 2402, 2402, 2402, 2402, 2402],
     [2402, 1, 1206, 2186, 2187, 2186, 2402, 2403],
     [2404, 2406, 2193, 2402, 2407, 2402, 2402, 2402],
     [2402, 2402, 2402, 1, 2403, 2408, 2409, 2403],
     [2410, 2403, 2403, 2403, 2403, 2403, 2403, 1],
     [2411, 2411, 2411, 1, 2403, 2403, 2403, 1],
     [2409, 2412, 2409, 2410, 2409, 2409, 2409, 2409],
     [2409, 2409, 2409, 1, 2413, 2413, 2413, 1],
     [2409, 2409, 2409, 1, 2414, 2415, 2416, 2405],
     [2417, 2418, 2418, 1, 2419, 2420, 2419, 2421],
     [2421, 2421, 1, 2419, 2419, 2421, 2421, 2421],
     [1, 2419, 2422, 2419, 2421, 2421, 2421, 1],
     [2421, 2418, 2418, 1, 1206, 2186, 2187, 2186],
     [2423, 2424, 2192, 2425, 2193, 2423, 2418, 2418],
     [2418, 1, 2423, 2423, 2418, 2418, 2418, 1],
     [1206, 2186, 2187, 2186, 2192, 2425, 2193, 2421],
     [2418, 2418, 1, 2426, 2428, 2427, 2429, 1],
     [2430, 2431, 1, 2432, 2433, 1, 2434, 1],
     [1206, 2186, 2187, 2186, 2192, 2193, 1, 1206],
     [2186, 2187, 2186, 2192, 2193, 2434, 1, 1206],
     [2186, 2187, 2186, 2192, 2193, 2433, 1, 1206]]"

definition sup_indicies_15 :: "int list list" where
  "sup_indicies_15 =
    [[2186, 2187, 2186, 2192, 2193, 2429, 1, 1206],
     [2186, 2187, 2186, 2192, 2193, 2431, 1, 1206],
     [2186, 2187, 2186, 2192, 2435, 2193, 2429, 2431],
     [1, 1206, 2186, 2187, 2186, 2192, 2436, 2193],
     [2431, 2433, 1, 1206, 2186, 2187, 2186, 2192],
     [2437, 2193, 2433, 2434, 1, 1206, 2186, 2187],
     [2186, 2192, 2193, 2434, 1, 2438, 2439, 2440],
     [2441, 2418, 2418, 1, 2419, 2442, 2419, 2421],
     [2421, 2421, 1, 2443, 2444, 2445, 2446, 2418],
     [2418, 1, 2419, 2447, 2419, 2421, 2421, 2421],
     [1, 2448, 2449, 2450, 2451, 2418, 2418, 1],
     [1206, 2186, 2187, 2186, 2419, 2422, 2192, 2425],
     [2193, 2419, 2421, 2421, 2421, 1, 1206, 2186],
     [2187, 2186, 2419, 2422, 2192, 2425, 2193, 2419],
     [2451, 2421, 2421, 1, 1206, 2186, 2187, 2186],
     [2419, 2422, 2192, 2425, 2193, 2419, 2448, 2421],
     [2421, 1, 1206, 2186, 2187, 2186, 2419, 2422],
     [2192, 2452, 2425, 2193, 2419, 2451, 2448, 2421],
     [2421, 1, 1206, 2186, 2187, 2186, 2419, 2422],
     [2192, 2425, 2193, 2419, 2448, 2421, 2421, 2421],
     [1, 2419, 2447, 2419, 2446, 2421, 2421, 1],
     [2419, 2447, 2419, 2443, 2421, 2421, 1, 2419],
     [2447, 2453, 2419, 2446, 2443, 2421, 2421, 1],
     [2419, 2447, 2419, 2443, 2421, 2421, 2421, 1],
     [2419, 2442, 2419, 2441, 2421, 2421, 1, 2419],
     [2442, 2419, 2438, 2421, 2421, 1, 2419, 2442],
     [2454, 2419, 2441, 2438, 2421, 2421, 1, 2419],
     [2442, 2419, 2438, 2421, 2421, 2421, 1, 2419],
     [2420, 2419, 2417, 2421, 2421, 1, 2419, 2420],
     [2419, 2414, 2421, 2421, 1, 2419, 2420, 2455],
     [2419, 2417, 2414, 2421, 2421, 1, 2419, 2420],
     [2419, 2414, 2421, 2421, 2421, 1, 2457, 2456],
     [2456, 2456, 1, 2459, 2458, 2458, 2458, 1],
     [2459, 2460, 2460, 2460, 1, 2459, 2461, 2461],
     [2461, 1, 2459, 1, 2463, 2462, 2462, 2462],
     [1, 2465, 2464, 2464, 2464, 1, 2465, 2466],
     [2466, 2466, 1, 2465, 2467, 2467, 2467, 1],
     [2465, 1, 2469, 2468, 2468, 2468, 1, 2471],
     [2470, 2470, 2470, 1, 2471, 2472, 2472, 2472],
     [1, 2471, 2473, 2473, 2473, 1, 2471, 1],
     [2475, 2474, 2474, 2474, 1, 2477, 2476, 2476],
     [2476, 1, 2477, 2478, 2478, 2478, 1, 2477],
     [2479, 2479, 2479, 1, 2477, 1, 2481, 2480],
     [2480, 2480, 1, 2483, 2482, 2482, 2482, 1],
     [2483, 2484, 2484, 2484, 1, 2483, 2485, 2485],
     [2485, 1, 2483, 1, 2487, 2486, 2486, 2486],
     [1, 2489, 2488, 2488, 2488, 1, 2489, 2490],
     [2490, 2490, 1, 2489, 2491, 2491, 2491, 1],
     [2489, 1, 2492, 2493, 2494, 2496, 2495, 2497],
     [2497, 1, 2498, 2500, 2499, 2499, 2499, 1],
     [2501, 2502, 2503, 2504, 1, 2505, 1, 2506],
     [2507, 2508, 2509, 1, 2510, 1, 2511, 2512],
     [2513, 2514, 1, 2515, 1, 1206, 2186, 2187],
     [2186, 2192, 2425, 2193, 1, 2515, 2514, 1],
     [2515, 2511, 1, 2516, 2515, 2514, 2511, 1],
     [2515, 2511, 1, 2510, 2509, 1, 2510, 2506],
     [1, 2510, 2517, 2509, 2506, 1, 2510, 2506],
     [1, 2505, 2504, 1, 2505, 2501, 1, 2505],
     [2518, 2504, 2501, 1, 2505, 2501, 1, 2500],
     [2519, 2519, 2519, 1, 2500, 2520, 2520, 2520],
     [1, 2500, 1, 2511, 2521, 2521, 2521, 1],
     [2515, 2522, 2522, 2522, 1, 2515, 2523, 2523],
     [2523, 1, 2515, 2511, 2511, 2511, 1, 2498],
     [2500, 2524, 2499, 2499, 1, 2498, 2500, 2525],
     [2519, 2519, 1, 2498, 2500, 2520, 2520, 2520],
     [1, 2498, 2526, 2500, 2524, 2527, 2499, 2499],
     [1, 2498, 2500, 2525, 2519, 2519, 2519, 1],
     [2498, 2500, 2519, 2519, 2519, 1, 2498, 2500],
     [2527, 2499, 2499, 1, 2515, 2521, 2521, 2521],
     [1, 2500, 2499, 2499, 2499, 1, 2528, 2529],
     [2530, 2515, 2531, 2532, 2532, 1, 2498, 2534],
     [2515, 2533, 2533, 2533, 1, 2534, 2515, 2535],
     [2535, 2535, 1, 2534, 2515, 2536, 2536, 2536],
     [1, 2534, 2515, 1, 2521, 2521, 2521, 1],
     [2498, 2534, 2515, 2537, 2533, 2533, 1, 2498],
     [2534, 2515, 2538, 2535, 2535, 1, 2498, 2534],
     [2515, 2536, 2536, 2536, 1, 2498, 2539, 2534],
     [2515, 2537, 2540, 2533, 2533, 1, 2498, 2534],
     [2515, 2538, 2535, 2535, 2535, 1, 2498, 2534],
     [2515, 2535, 2535, 2535, 1, 2498, 2534, 2515],
     [2540, 2533, 2533, 1, 2534, 2515, 2533, 2533],
     [2533, 1, 2541, 2542, 2543, 2515, 2544, 2545],
     [2545, 1, 2498, 2547, 2515, 2546, 2546, 2546],
     [1, 2547, 2515, 2548, 2548, 2548, 1, 2547],
     [2515, 2549, 2549, 2549, 1, 2547, 2515, 1],
     [2528, 2529, 2530, 2531, 2532, 2532, 1, 2498],
     [2547, 2515, 2550, 2546, 2546, 1, 2498, 2547],
     [2515, 2551, 2548, 2548, 1, 2498, 2547, 2515],
     [2549, 2549, 2549, 1, 2498, 2552, 2547, 2515],
     [2550, 2553, 2546, 2546, 1, 2498, 2547, 2515],
     [2551, 2548, 2548, 2548, 1, 2498, 2547, 2515],
     [2548, 2548, 2548, 1, 2498, 2547, 2515, 2553],
     [2546, 2546, 1, 2547, 2515, 2546, 2546, 2546],
     [1, 2554, 2555, 2556, 2515, 2557, 2558, 2558],
     [1, 2498, 2560, 2515, 2559, 2559, 2559, 1],
     [2560, 2515, 2561, 2561, 2561, 1, 2560, 2515],
     [2562, 2562, 2562, 1, 2560, 2515, 1, 2541],
     [2542, 2543, 2544, 2545, 2545, 1, 2498, 2560],
     [2515, 2563, 2559, 2559, 1, 2498, 2560, 2515],
     [2564, 2561, 2561, 1, 2498, 2560, 2515, 2562],
     [2562, 2562, 1, 2498, 2565, 2560, 2515, 2563],
     [2566, 2559, 2559, 1, 2498, 2560, 2515, 2564],
     [2561, 2561, 2561, 1, 2498, 2560, 2515, 2561],
     [2561, 2561, 1, 2498, 2560, 2515, 2566, 2559],
     [2559, 1, 2560, 2515, 2559, 2559, 2559, 1],
     [2567, 2568, 2569, 2515, 2570, 2571, 2571, 1],
     [2498, 2573, 2515, 2572, 2572, 2572, 1, 2573],
     [2515, 2574, 2574, 2574, 1, 2573, 2515, 2575],
     [2575, 2575, 1, 2573, 2515, 1, 2554, 2555],
     [2556, 2557, 2558, 2558, 1, 2498, 2573, 2515],
     [2576, 2572, 2572, 1, 2498, 2573, 2515, 2577],
     [2574, 2574, 1, 2498, 2573, 2515, 2575, 2575],
     [2575, 1, 2498, 2578, 2573, 2515, 2576, 2579],
     [2572, 2572, 1, 2498, 2573, 2515, 2577, 2574],
     [2574, 2574, 1, 2498, 2573, 2515, 2574, 2574],
     [2574, 1, 2498, 2573, 2515, 2579, 2572, 2572],
     [1, 2573, 2515, 2572, 2572, 2572, 1, 2580],
     [2581, 2582, 2515, 2583, 2584, 2584, 1, 2498],
     [2586, 2515, 2585, 2585, 2585, 1, 2586, 2515],
     [2587, 2587, 2587, 1, 2586, 2515, 2588, 2588],
     [2588, 1, 2586, 2515, 1, 2567, 2568, 2569],
     [2570, 2571, 2571, 1, 2498, 2586, 2515, 2589],
     [2585, 2585, 1, 2498, 2586, 2515, 2590, 2587],
     [2587, 1, 2498, 2586, 2515, 2588, 2588, 2588],
     [1, 2498, 2591, 2586, 2515, 2589, 2592, 2585],
     [2585, 1, 2498, 2586, 2515, 2590, 2587, 2587],
     [2587, 1, 2498, 2586, 2515, 2587, 2587, 2587],
     [1, 2498, 2586, 2515, 2592, 2585, 2585, 1],
     [2586, 2515, 2585, 2585, 2585, 1, 2593, 1],
     [2594, 2595, 2596, 2515, 2597, 2598, 2598, 1],
     [2498, 2600, 2515, 2599, 2599, 2599, 1, 2600],
     [2515, 2601, 2601, 2601, 1, 2600, 2515, 2602],
     [2602, 2602, 1, 2600, 2515, 1, 2580, 2581],
     [2582, 2583, 2584, 2584, 1, 2498, 2600, 2515],
     [2603, 2599, 2599, 1, 2498, 2600, 2515, 2604],
     [2601, 2601, 1, 2498, 2600, 2515, 2602, 2602],
     [2602, 1, 2498, 2605, 2600, 2515, 2603, 2606],
     [2599, 2599, 1, 2498, 2600, 2515, 2604, 2601],
     [2601, 2601, 1, 2498, 2600, 2515, 2601, 2601],
     [2601, 1, 2498, 2600, 2515, 2606, 2599, 2599],
     [1, 2600, 2515, 2599, 2599, 2599, 1, 2607],
     [2607, 2607, 1, 2402, 2402, 2402, 1, 1206],
     [2186, 2187, 2186, 2406, 2608, 2192, 2192, 2193],
     [2406, 2407, 2406, 2406, 2406, 2406, 2406, 2406],
     [1, 2609, 2609, 2609, 1, 2406, 2406, 2406],
     [1, 1206, 2186, 2187, 2186, 2192, 2399, 2193],
     [2192, 2405, 2192, 2192, 2192, 2192, 2192, 2192],
     [1, 1184, 1185, 1184, 1186, 1186, 1186, 1186],
     [2184, 2185, 1187, 2610, 2610, 1186, 2184, 2184],
     [2184, 1186, 2184, 1, 1184, 1185, 1184, 1186]]"

definition sup_indicies_16 :: "int list list" where
  "sup_indicies_16 =
    [[1186, 1186, 1186, 2184, 2185, 1187, 2611, 2611],
     [1186, 2184, 2184, 2184, 1186, 2184, 1, 1184],
     [1185, 1184, 1186, 1186, 1186, 1186, 2184, 2612],
     [1187, 2613, 2613, 1186, 2184, 2184, 2184, 1186],
     [2184, 1, 2614, 2615, 2616, 2617, 2618, 2614],
     [2621, 2614, 2614, 2614, 2614, 2619, 2620, 2620],
     [1, 2622, 2623, 2624, 2622, 2625, 2622, 2622],
     [2622, 2622, 2622, 2622, 1, 2626, 2626, 2626],
     [1, 2622, 2622, 2622, 1, 2624, 2627, 2624],
     [2625, 2624, 2624, 2624, 2624, 2624, 2624, 2624],
     [1, 2628, 2628, 2628, 1, 2624, 2624, 2624],
     [1, 2629, 2630, 2631, 2621, 2632, 2633, 2633],
     [1, 2634, 2635, 2634, 2636, 2636, 2636, 1],
     [2634, 2634, 2636, 2636, 2636, 1, 2634, 2637],
     [2634, 2636, 2636, 2636, 1, 2636, 2638, 2638],
     [1, 1657, 2639, 2640, 2639, 2641, 2642, 2643],
     [2644, 2641, 2638, 2638, 2638, 1, 2641, 2641],
     [2638, 2638, 2638, 1, 1657, 2639, 2640, 2639],
     [2643, 2644, 2636, 2638, 2638, 1, 2645, 2647],
     [2646, 2648, 1, 2649, 2650, 1, 2651, 2652],
     [1, 2653, 1, 1672, 2654, 2655, 2654, 2656],
     [1, 1672, 2654, 2655, 2654, 2656, 2653, 1],
     [1672, 2654, 2655, 2654, 2656, 2652, 1, 1672],
     [2654, 2655, 2654, 2656, 2657, 1, 1672, 2654],
     [2655, 2654, 2656, 2650, 1, 1672, 2654, 2655],
     [2654, 2658, 2656, 2657, 2650, 1, 1672, 2654],
     [2655, 2654, 2659, 2656, 2650, 2652, 1, 1672],
     [2654, 2655, 2654, 2660, 2656, 2652, 2653, 1],
     [1672, 2654, 2655, 2654, 2656, 2653, 1, 2661],
     [2662, 2663, 2664, 2638, 2638, 1, 2634, 2665],
     [2634, 2636, 2636, 2636, 1, 2666, 2667, 2668],
     [2669, 2638, 2638, 1, 2634, 2670, 2634, 2636],
     [2636, 2636, 1, 2671, 2672, 2673, 2674, 2638],
     [2638, 1, 1812, 2675, 2676, 2675, 2634, 2637],
     [2677, 2678, 2634, 2636, 2636, 2636, 1, 1812],
     [2675, 2676, 2675, 2634, 2637, 2677, 2678, 2634],
     [2674, 2636, 2636, 1, 1812, 2675, 2676, 2675],
     [2634, 2637, 2677, 2678, 2634, 2671, 2636, 2636],
     [1, 1812, 2675, 2676, 2675, 2634, 2637, 2679],
     [2677, 2678, 2634, 2674, 2671, 2636, 2636, 1],
     [1812, 2675, 2676, 2675, 2634, 2637, 2677, 2678],
     [2634, 2671, 2636, 2636, 2636, 1, 2634, 2670],
     [2634, 2669, 2636, 2636, 1, 2634, 2670, 2634],
     [2666, 2636, 2636, 1, 2634, 2670, 2680, 2634],
     [2669, 2666, 2636, 2636, 1, 2634, 2670, 2634],
     [2666, 2636, 2636, 2636, 1, 2634, 2665, 2634],
     [2664, 2636, 2636, 1, 2634, 2665, 2634, 2661],
     [2636, 2636, 1, 2634, 2665, 2681, 2634, 2664],
     [2661, 2636, 2636, 1, 2634, 2665, 2634, 2661],
     [2636, 2636, 2636, 1, 2634, 2635, 2634, 2682],
     [2636, 2636, 1, 2634, 2635, 2634, 2683, 2636],
     [2636, 1, 2634, 2635, 2684, 2634, 2682, 2683],
     [2636, 2636, 1, 2634, 2635, 2634, 2683, 2636],
     [2636, 2636, 1, 2686, 2685, 2685, 2685, 1],
     [2688, 2687, 2687, 2687, 1, 2688, 2689, 2689],
     [2689, 1, 2688, 2690, 2690, 2690, 1, 2688],
     [1, 2692, 2691, 2691, 2691, 1, 2694, 2693],
     [2693, 2693, 1, 2694, 2695, 2695, 2695, 1],
     [2694, 2696, 2696, 2696, 1, 2694, 1, 2698],
     [2697, 2697, 2697, 1, 2700, 2699, 2699, 2699],
     [1, 2700, 2701, 2701, 2701, 1, 2700, 2702],
     [2702, 2702, 1, 2700, 1, 2704, 2703, 2703],
     [2703, 1, 2706, 2705, 2705, 2705, 1, 2706],
     [2707, 2707, 2707, 1, 2706, 2708, 2708, 2708],
     [1, 2706, 1, 2710, 2709, 2709, 2709, 1],
     [2712, 2711, 2711, 2711, 1, 2712, 2713, 2713],
     [2713, 1, 2712, 2714, 2714, 2714, 1, 2712],
     [1, 2716, 2715, 2715, 2715, 1, 2718, 2717],
     [2717, 2717, 1, 2718, 2719, 2719, 2719, 1],
     [2718, 2720, 2720, 2720, 1, 2718, 1, 2721],
     [2722, 2723, 2725, 2724, 2726, 2726, 1, 2727],
     [2729, 2728, 2728, 2728, 1, 2730, 2731, 2732],
     [2733, 1, 2734, 1, 2735, 2736, 2737, 2738],
     [1, 2739, 1, 2740, 2741, 2742, 2743, 1],
     [2744, 1, 1882, 2745, 2746, 2745, 2747, 2748],
     [1, 2744, 2743, 1, 2744, 2740, 1, 2749],
     [2744, 2743, 2740, 1, 2744, 2740, 1, 2739],
     [2738, 1, 2739, 2735, 1, 2739, 2750, 2738],
     [2735, 1, 2739, 2735, 1, 2734, 2733, 1],
     [2734, 2730, 1, 2734, 2751, 2733, 2730, 1],
     [2734, 2730, 1, 2729, 2752, 2752, 2752, 1],
     [2729, 2753, 2753, 2753, 1, 2729, 1, 2740],
     [2754, 2754, 2754, 1, 2744, 2755, 2755, 2755],
     [1, 2744, 2756, 2756, 2756, 1, 2744, 2740],
     [2740, 2740, 1, 2727, 2729, 2757, 2728, 2728],
     [1, 2727, 2729, 2758, 2752, 2752, 1, 2727],
     [2729, 2753, 2753, 2753, 1, 2727, 2759, 2729],
     [2757, 2760, 2728, 2728, 1, 2727, 2729, 2758],
     [2752, 2752, 2752, 1, 2727, 2729, 2752, 2752],
     [2752, 1, 2727, 2729, 2760, 2728, 2728, 1],
     [2744, 2754, 2754, 2754, 1, 2729, 2728, 2728],
     [2728, 1, 2761, 2762, 2763, 2744, 2764, 2765],
     [2765, 1, 2727, 2767, 2744, 2766, 2766, 2766],
     [1, 2767, 2744, 2768, 2768, 2768, 1, 2767],
     [2744, 2769, 2769, 2769, 1, 2767, 2744, 1],
     [2754, 2754, 2754, 1, 2727, 2767, 2744, 2770],
     [2766, 2766, 1, 2727, 2767, 2744, 2771, 2768],
     [2768, 1, 2727, 2767, 2744, 2769, 2769, 2769],
     [1, 2727, 2772, 2767, 2744, 2770, 2773, 2766],
     [2766, 1, 2727, 2767, 2744, 2771, 2768, 2768],
     [2768, 1, 2727, 2767, 2744, 2768, 2768, 2768],
     [1, 2727, 2767, 2744, 2773, 2766, 2766, 1],
     [2767, 2744, 2766, 2766, 2766, 1, 2774, 2775],
     [2776, 2744, 2777, 2778, 2778, 1, 2727, 2780],
     [2744, 2779, 2779, 2779, 1, 2780, 2744, 2781],
     [2781, 2781, 1, 2780, 2744, 2782, 2782, 2782],
     [1, 2780, 2744, 1, 2761, 2762, 2763, 2764],
     [2765, 2765, 1, 2727, 2780, 2744, 2783, 2779],
     [2779, 1, 2727, 2780, 2744, 2784, 2781, 2781],
     [1, 2727, 2780, 2744, 2782, 2782, 2782, 1],
     [2727, 2785, 2780, 2744, 2783, 2786, 2779, 2779],
     [1, 2727, 2780, 2744, 2784, 2781, 2781, 2781],
     [1, 2727, 2780, 2744, 2781, 2781, 2781, 1],
     [2727, 2780, 2744, 2786, 2779, 2779, 1, 2780],
     [2744, 2779, 2779, 2779, 1, 2787, 2788, 2789],
     [2744, 2790, 2791, 2791, 1, 2727, 2793, 2744],
     [2792, 2792, 2792, 1, 2793, 2744, 2794, 2794],
     [2794, 1, 2793, 2744, 2795, 2795, 2795, 1],
     [2793, 2744, 1, 2774, 2775, 2776, 2777, 2778],
     [2778, 1, 2727, 2793, 2744, 2796, 2792, 2792],
     [1, 2727, 2793, 2744, 2797, 2794, 2794, 1],
     [2727, 2793, 2744, 2795, 2795, 2795, 1, 2727],
     [2798, 2793, 2744, 2796, 2799, 2792, 2792, 1],
     [2727, 2793, 2744, 2797, 2794, 2794, 2794, 1],
     [2727, 2793, 2744, 2794, 2794, 2794, 1, 2727],
     [2793, 2744, 2799, 2792, 2792, 1, 2793, 2744],
     [2792, 2792, 2792, 1, 2800, 2801, 2802, 2744],
     [2803, 2804, 2804, 1, 2727, 2806, 2744, 2805],
     [2805, 2805, 1, 2806, 2744, 2807, 2807, 2807],
     [1, 2806, 2744, 2808, 2808, 2808, 1, 2806],
     [2744, 1, 2787, 2788, 2789, 2790, 2791, 2791],
     [1, 2727, 2806, 2744, 2809, 2805, 2805, 1],
     [2727, 2806, 2744, 2810, 2807, 2807, 1, 2727],
     [2806, 2744, 2808, 2808, 2808, 1, 2727, 2811],
     [2806, 2744, 2809, 2812, 2805, 2805, 1, 2727],
     [2806, 2744, 2810, 2807, 2807, 2807, 1, 2727],
     [2806, 2744, 2807, 2807, 2807, 1, 2727, 2806],
     [2744, 2812, 2805, 2805, 1, 2806, 2744, 2805],
     [2805, 2805, 1, 2813, 2814, 2815, 2744, 2816],
     [2817, 2817, 1, 2727, 2819, 2744, 2818, 2818],
     [2818, 1, 2819, 2744, 2820, 2820, 2820, 1],
     [2819, 2744, 2821, 2821, 2821, 1, 2819, 2744],
     [1, 2800, 2801, 2802, 2803, 2804, 2804, 1],
     [2727, 2819, 2744, 2822, 2818, 2818, 1, 2727],
     [2819, 2744, 2823, 2820, 2820, 1, 2727, 2819],
     [2744, 2821, 2821, 2821, 1, 2727, 2824, 2819],
     [2744, 2822, 2825, 2818, 2818, 1, 2727, 2819],
     [2744, 2823, 2820, 2820, 2820, 1, 2727, 2819],
     [2744, 2820, 2820, 2820, 1, 2727, 2819, 2744],
     [2825, 2818, 2818, 1, 2819, 2744, 2818, 2818]]"

definition sup_indicies_17 :: "int list list" where
  "sup_indicies_17 =
    [[2818, 1, 2826, 1, 2827, 2828, 2829, 2744],
     [2830, 2831, 2831, 1, 2727, 2833, 2744, 2832],
     [2832, 2832, 1, 2833, 2744, 2834, 2834, 2834],
     [1, 2833, 2744, 2835, 2835, 2835, 1, 2833],
     [2744, 1, 2813, 2814, 2815, 2816, 2817, 2817],
     [1, 2727, 2833, 2744, 2836, 2832, 2832, 1],
     [2727, 2833, 2744, 2837, 2834, 2834, 1, 2727],
     [2833, 2744, 2835, 2835, 2835, 1, 2727, 2838],
     [2833, 2744, 2836, 2839, 2832, 2832, 1, 2727],
     [2833, 2744, 2837, 2834, 2834, 2834, 1, 2727],
     [2833, 2744, 2834, 2834, 2834, 1, 2727, 2833],
     [2744, 2839, 2832, 2832, 1, 2833, 2744, 2832],
     [2832, 2832, 1, 2622, 2623, 2840, 2841, 2622],
     [2624, 2622, 2625, 2840, 2622, 2622, 2842, 2842],
     [2842, 1, 2622, 2623, 2840, 2624, 2622, 2625],
     [2840, 2622, 2622, 2622, 2842, 2842, 2842, 1],
     [2622, 2623, 2840, 2843, 2622, 2624, 2622, 2625],
     [2840, 2622, 2622, 2842, 2842, 2842, 1, 2622],
     [2623, 2624, 2622, 2625, 2622, 2622, 2622, 2622],
     [2842, 2844, 2844, 1, 1657, 2639, 2640, 2639],
     [2622, 2623, 2845, 2846, 2622, 2847, 2644, 2622],
     [2625, 2845, 2622, 2622, 2844, 2844, 2844, 1],
     [2622, 2623, 2845, 2624, 2622, 2625, 2845, 2622],
     [2622, 2622, 2844, 2844, 2844, 1, 1657, 2639],
     [2640, 2639, 2622, 2623, 2847, 2644, 2622, 2625],
     [2622, 2622, 2622, 2622, 2842, 2844, 2844, 1],
     [2624, 2627, 2848, 2850, 2624, 2625, 2624, 2624],
     [2624, 2624, 2849, 2851, 2624, 2624, 1, 2624],
     [2627, 2852, 2624, 2625, 2624, 2624, 2624, 2624],
     [2853, 2624, 2624, 1, 2624, 2627, 2854, 2624],
     [2625, 2624, 2624, 2624, 2624, 2855, 2624, 2624],
     [1, 2624, 2627, 2624, 2624, 2625, 2624, 2624],
     [2624, 2624, 2856, 2624, 2624, 1, 1672, 2654],
     [2655, 2654, 2624, 2627, 2656, 2624, 2625, 2624],
     [2624, 2624, 2624, 2624, 2624, 2624, 1, 1672],
     [2654, 2655, 2654, 2624, 2627, 2656, 2624, 2625],
     [2624, 2624, 2624, 2624, 2856, 2624, 2624, 1],
     [1672, 2654, 2655, 2654, 2624, 2627, 2656, 2624],
     [2625, 2624, 2624, 2624, 2624, 2855, 2624, 2624],
     [1, 1672, 2654, 2655, 2654, 2624, 2627, 2656],
     [2624, 2625, 2624, 2624, 2624, 2624, 2857, 2624],
     [2624, 1, 1672, 2654, 2655, 2654, 2624, 2627],
     [2656, 2624, 2625, 2624, 2624, 2624, 2624, 2853],
     [2624, 2624, 1, 1672, 2654, 2655, 2654, 2624],
     [2627, 2858, 2656, 2624, 2625, 2624, 2624, 2624],
     [2624, 2857, 2853, 2624, 2624, 1, 1672, 2654],
     [2655, 2654, 2624, 2627, 2859, 2656, 2624, 2625],
     [2624, 2624, 2624, 2624, 2853, 2855, 2624, 2624],
     [1, 1672, 2654, 2655, 2654, 2624, 2627, 2860],
     [2656, 2624, 2625, 2624, 2624, 2624, 2624, 2855],
     [2856, 2624, 2624, 1, 1672, 2654, 2655, 2654],
     [2624, 2627, 2656, 2624, 2625, 2624, 2624, 2624],
     [2624, 2856, 2624, 2624, 2624, 1, 2622, 2623],
     [2861, 2862, 2863, 2624, 2622, 2625, 2622, 2622],
     [2622, 2622, 2864, 2844, 2844, 1, 2622, 2623],
     [2840, 2865, 2622, 2624, 2622, 2625, 2840, 2622],
     [2622, 2842, 2842, 2842, 1, 2622, 2623, 2866],
     [2867, 2868, 2624, 2622, 2625, 2622, 2622, 2622],
     [2622, 2869, 2844, 2844, 1, 2622, 2623, 2840],
     [2870, 2622, 2624, 2622, 2625, 2840, 2622, 2622],
     [2842, 2842, 2842, 1, 2622, 2623, 2871, 2872],
     [2873, 2624, 2622, 2625, 2622, 2622, 2622, 2622],
     [2874, 2844, 2844, 1, 1812, 2675, 2676, 2675],
     [2622, 2623, 2840, 2843, 2622, 2875, 2678, 2622],
     [2625, 2840, 2622, 2622, 2842, 2842, 2842, 1],
     [1812, 2675, 2676, 2675, 2622, 2623, 2840, 2843],
     [2622, 2875, 2678, 2622, 2625, 2840, 2622, 2622],
     [2874, 2842, 2842, 1, 1812, 2675, 2676, 2675],
     [2622, 2623, 2840, 2843, 2622, 2875, 2678, 2622],
     [2625, 2840, 2622, 2622, 2871, 2842, 2842, 1],
     [1812, 2675, 2676, 2675, 2622, 2623, 2840, 2843],
     [2622, 2876, 2875, 2678, 2622, 2625, 2840, 2622],
     [2622, 2874, 2871, 2842, 2842, 1, 1812, 2675],
     [2676, 2675, 2622, 2623, 2840, 2843, 2622, 2875],
     [2678, 2622, 2625, 2840, 2622, 2622, 2871, 2842],
     [2842, 2842, 1, 2622, 2623, 2840, 2870, 2622],
     [2624, 2622, 2625, 2840, 2622, 2622, 2869, 2842],
     [2842, 1, 2622, 2623, 2840, 2870, 2622, 2624],
     [2622, 2625, 2840, 2622, 2622, 2866, 2842, 2842],
     [1, 2622, 2623, 2840, 2870, 2622, 2877, 2624],
     [2622, 2625, 2840, 2622, 2622, 2869, 2866, 2842],
     [2842, 1, 2622, 2623, 2840, 2870, 2622, 2624],
     [2622, 2625, 2840, 2622, 2622, 2866, 2842, 2842],
     [2842, 1, 2622, 2623, 2840, 2865, 2622, 2624],
     [2622, 2625, 2840, 2622, 2622, 2864, 2842, 2842],
     [1, 2622, 2623, 2840, 2865, 2622, 2624, 2622],
     [2625, 2840, 2622, 2622, 2861, 2842, 2842, 1],
     [2622, 2623, 2840, 2865, 2622, 2878, 2624, 2622],
     [2625, 2840, 2622, 2622, 2864, 2861, 2842, 2842],
     [1, 2622, 2623, 2840, 2865, 2622, 2624, 2622],
     [2625, 2840, 2622, 2622, 2861, 2842, 2842, 2842],
     [1, 2622, 2623, 2840, 2841, 2622, 2624, 2622],
     [2625, 2840, 2622, 2622, 2879, 2842, 2842, 1],
     [2622, 2623, 2840, 2841, 2622, 2624, 2622, 2625],
     [2840, 2622, 2622, 2880, 2842, 2842, 1, 2622],
     [2623, 2840, 2841, 2622, 2881, 2624, 2622, 2625],
     [2840, 2622, 2622, 2879, 2880, 2842, 2842, 1],
     [2622, 2623, 2840, 2841, 2622, 2624, 2622, 2625],
     [2840, 2622, 2622, 2880, 2842, 2842, 2842, 1],
     [1184, 1185, 1184, 1186, 1186, 1186, 1186, 2184],
     [2882, 1187, 1186, 2184, 2184, 2184, 1186, 2184],
     [1, 1184, 1185, 1184, 1186, 1186, 1186, 1186],
     [2184, 2185, 1187, 2883, 2883, 1186, 2184, 2184],
     [2184, 1186, 2184, 1, 1184, 1185, 1184, 1186],
     [1186, 1186, 1186, 2184, 2185, 1187, 2884, 2884],
     [1186, 2184, 2184, 2184, 1186, 2184, 1, 1184],
     [1185, 1184, 1186, 1186, 1186, 1186, 2184, 2885],
     [1187, 1186, 2184, 2184, 2184, 1186, 2184, 1],
     [2886, 2886, 2888, 2887, 2887, 2886, 2886, 2886],
     [1, 2141, 2889, 2890, 2889, 2891, 2892, 2891],
     [2891, 2891, 2891, 2891, 1, 2891, 2891, 2893],
     [2893, 2891, 2891, 2891, 1, 2894, 2894, 2895],
     [1, 2141, 2889, 2890, 2889, 2892, 2895, 2895],
     [2895, 1, 1184, 1185, 1184, 1186, 1186, 1186],
     [1186, 1187, 1186, 1204, 1205, 2184, 2185, 2896],
     [2897, 1186, 1204, 1204, 1204, 1204, 2184, 2184],
     [2184, 2184, 2896, 2896, 2896, 2896, 1, 1206],
     [1207, 1207, 2186, 2187, 2186, 1207, 1208, 1209],
     [1210, 1211, 1207, 1211, 1212, 1207, 1207, 2188],
     [2189, 2190, 2191, 2192, 2193, 2188, 2192, 2194],
     [2188, 2188, 2898, 2899, 2900, 2901, 2902, 2903],
     [2898, 2902, 2904, 2898, 2898, 1207, 1207, 1207],
     [1207, 2188, 2188, 2188, 2188, 2898, 2898, 2898],
     [2898, 1, 1206, 1207, 1207, 2186, 2187, 2186],
     [1207, 1208, 1209, 1213, 1207, 1214, 1207, 1207],
     [2188, 2189, 2190, 2195, 2193, 2188, 2196, 2188],
     [2188, 2898, 2899, 2900, 2905, 2903, 2898, 2906],
     [2898, 2898, 1207, 1207, 1207, 1207, 2188, 2188],
     [2188, 2188, 2898, 2898, 2898, 2898, 1, 1208],
     [1208, 1208, 1208, 1215, 1216, 1208, 1217, 1208],
     [1208, 2189, 2197, 2198, 2189, 2199, 2189, 2189],
     [2899, 2907, 2908, 2899, 2909, 2899, 2899, 1208],
     [1208, 1208, 1208, 2189, 2189, 2189, 2189, 2899],
     [2899, 2899, 2899, 1, 1218, 1218, 1218, 2200],
     [2200, 2200, 2910, 2910, 2910, 1, 1208, 1208],
     [1208, 2189, 2189, 2189, 2899, 2899, 2899, 1],
     [1216, 1216, 1219, 1216, 1217, 1216, 1216, 2198],
     [2201, 2198, 2199, 2198, 2198, 2908, 2911, 2908],
     [2909, 2908, 2908, 1216, 1216, 1216, 1216, 1216],
     [2198, 2198, 2198, 2198, 2198, 2908, 2908, 2908],
     [2908, 2908, 1, 1220, 1220, 1220, 2202, 2202],
     [2202, 2912, 2912, 2912, 1, 1216, 1216, 1216],
     [2198, 2198, 2198, 2908, 2908, 2908, 1, 1221],
     [1222, 1223, 1212, 2203, 2204, 2205, 2194, 2913],
     [2914, 2915, 2904, 1224, 1225, 1225, 2206, 2207],
     [2207, 2916, 2917, 2917, 1, 1226, 1227, 1226],
     [2208, 2209, 2208, 2918, 2919, 2918, 1228, 1228],
     [1228, 2210, 2210, 2210, 2920, 2920, 2920, 1],
     [1226, 1226, 2208, 2208, 2918, 2918, 1228, 1228],
     [1228, 2210, 2210, 2210, 2920, 2920, 2920, 1]]"

definition sup_indicies_18 :: "int list list" where
  "sup_indicies_18 =
    [[1226, 1229, 1226, 2208, 2211, 2208, 2918, 2921],
     [2918, 1228, 1228, 1228, 2210, 2210, 2210, 2920],
     [2920, 2920, 1, 1228, 1225, 1225, 2210, 2207],
     [2207, 2920, 2917, 2917, 1, 1206, 1211, 2186],
     [2187, 2186, 2193, 1230, 1231, 1232, 1230, 2212],
     [2213, 2214, 2212, 2922, 2923, 2924, 2922, 1225],
     [1225, 1225, 2207, 2207, 2207, 2917, 2917, 2917],
     [1, 1230, 1230, 2212, 2212, 2922, 2922, 1225],
     [1225, 1225, 2207, 2207, 2207, 2917, 2917, 2917],
     [1, 1206, 1211, 2186, 2187, 2186, 2193, 1232],
     [2214, 2924, 1228, 1225, 1225, 2210, 2207, 2207],
     [2920, 2917, 2917, 1, 1233, 1235, 2215, 2217],
     [2925, 2927, 1234, 1236, 2216, 2218, 2926, 2928],
     [1, 1237, 2219, 2929, 1238, 2220, 2930, 1],
     [1239, 2221, 2931, 1240, 2222, 2932, 1, 1241],
     [2223, 2933, 1, 1206, 1211, 2186, 2187, 2186],
     [2193, 1, 1206, 1211, 2186, 2187, 2186, 2193],
     [1241, 2223, 2933, 1, 1206, 1211, 2186, 2187],
     [2186, 2193, 1240, 2222, 2932, 1, 1206, 1211],
     [2186, 2187, 2186, 2193, 1236, 2218, 2928, 1],
     [1206, 1211, 2186, 2187, 2186, 2193, 1238, 2220],
     [2930, 1, 1206, 1211, 2186, 2187, 2186, 2193],
     [1244, 2224, 2934, 1236, 1238, 2218, 2220, 2928],
     [2930, 1, 1206, 1211, 2186, 2187, 2186, 2193],
     [1245, 2225, 2935, 1238, 1240, 2220, 2222, 2930],
     [2932, 1, 1206, 1211, 2186, 2187, 2186, 2193],
     [1246, 2226, 2936, 1240, 1241, 2222, 2223, 2932],
     [2933, 1, 1206, 1211, 2186, 2187, 2186, 2193],
     [1241, 2223, 2933, 1, 1247, 1248, 1249, 2227],
     [2228, 2229, 2937, 2938, 2939, 1250, 1225, 1225],
     [2230, 2207, 2207, 2940, 2917, 2917, 1, 1226],
     [1251, 1226, 2208, 2231, 2208, 2918, 2941, 2918],
     [1228, 1228, 1228, 2210, 2210, 2210, 2920, 2920],
     [2920, 1, 1252, 1253, 1254, 2232, 2233, 2234],
     [2942, 2943, 2944, 1255, 1225, 1225, 2235, 2207],
     [2207, 2945, 2917, 2917, 1, 1226, 1256, 1226],
     [2208, 2236, 2208, 2918, 2946, 2918, 1228, 1228],
     [1228, 2210, 2210, 2210, 2920, 2920, 2920, 1],
     [1257, 1258, 1259, 2237, 2238, 2239, 2947, 2948],
     [2949, 1260, 1225, 1225, 2240, 2207, 2207, 2950],
     [2917, 2917, 1, 1206, 1211, 2186, 2187, 2186],
     [2193, 1226, 1229, 1232, 1226, 2208, 2211, 2214],
     [2208, 2918, 2921, 2924, 2918, 1228, 1228, 1228],
     [2210, 2210, 2210, 2920, 2920, 2920, 1, 1206],
     [1211, 2186, 2187, 2186, 2193, 1226, 1229, 1232],
     [1226, 2208, 2211, 2214, 2208, 2918, 2921, 2924],
     [2918, 1260, 1228, 1228, 2240, 2210, 2210, 2950],
     [2920, 2920, 1, 1206, 1211, 2186, 2187, 2186],
     [2193, 1226, 1229, 1232, 1226, 2208, 2211, 2214],
     [2208, 2918, 2921, 2924, 2918, 1257, 1228, 1228],
     [2237, 2210, 2210, 2947, 2920, 2920, 1, 1206],
     [1211, 2186, 2187, 2186, 2193, 1226, 1229, 1261],
     [1232, 1226, 2208, 2211, 2241, 2214, 2208, 2918],
     [2921, 2951, 2924, 2918, 1260, 1257, 1228, 1228],
     [2240, 2237, 2210, 2210, 2950, 2947, 2920, 2920],
     [1, 1206, 1211, 2186, 2187, 2186, 2193, 1226],
     [1229, 1232, 1226, 2208, 2211, 2214, 2208, 2918],
     [2921, 2924, 2918, 1257, 1228, 1228, 1228, 2237],
     [2210, 2210, 2210, 2947, 2920, 2920, 2920, 1],
     [1226, 1256, 1226, 2208, 2236, 2208, 2918, 2946],
     [2918, 1255, 1228, 1228, 2235, 2210, 2210, 2945],
     [2920, 2920, 1, 1226, 1256, 1226, 2208, 2236],
     [2208, 2918, 2946, 2918, 1252, 1228, 1228, 2232],
     [2210, 2210, 2942, 2920, 2920, 1, 1226, 1256],
     [1262, 1226, 2208, 2236, 2242, 2208, 2918, 2946],
     [2952, 2918, 1255, 1252, 1228, 1228, 2235, 2232],
     [2210, 2210, 2945, 2942, 2920, 2920, 1, 1226],
     [1256, 1226, 2208, 2236, 2208, 2918, 2946, 2918],
     [1252, 1228, 1228, 1228, 2232, 2210, 2210, 2210],
     [2942, 2920, 2920, 2920, 1, 1226, 1251, 1226],
     [2208, 2231, 2208, 2918, 2941, 2918, 1250, 1228],
     [1228, 2230, 2210, 2210, 2940, 2920, 2920, 1],
     [1226, 1251, 1226, 2208, 2231, 2208, 2918, 2941],
     [2918, 1247, 1228, 1228, 2227, 2210, 2210, 2937],
     [2920, 2920, 1, 1226, 1251, 1263, 1226, 2208],
     [2231, 2243, 2208, 2918, 2941, 2953, 2918, 1250],
     [1247, 1228, 1228, 2230, 2227, 2210, 2210, 2940],
     [2937, 2920, 2920, 1, 1226, 1251, 1226, 2208],
     [2231, 2208, 2918, 2941, 2918, 1247, 1228, 1228],
     [1228, 2227, 2210, 2210, 2210, 2937, 2920, 2920],
     [2920, 1, 1226, 1227, 1226, 2208, 2209, 2208],
     [2918, 2919, 2918, 1224, 1228, 1228, 2206, 2210],
     [2210, 2916, 2920, 2920, 1, 1226, 1227, 1226],
     [2208, 2209, 2208, 2918, 2919, 2918, 1221, 1228],
     [1228, 2203, 2210, 2210, 2913, 2920, 2920, 1],
     [1226, 1227, 1264, 1226, 2208, 2209, 2244, 2208],
     [2918, 2919, 2954, 2918, 1224, 1221, 1228, 1228],
     [2206, 2203, 2210, 2210, 2916, 2913, 2920, 2920],
     [1, 1226, 1227, 1226, 2208, 2209, 2208, 2918],
     [2919, 2918, 1221, 1228, 1228, 1228, 2203, 2210],
     [2210, 2210, 2913, 2920, 2920, 2920, 1, 1266],
     [2246, 2956, 1265, 1265, 1265, 2245, 2245, 2245],
     [2955, 2955, 2955, 1, 1268, 2248, 2958, 1267],
     [1267, 1267, 2247, 2247, 2247, 2957, 2957, 2957],
     [1, 1268, 2248, 2958, 1269, 1269, 1269, 2249],
     [2249, 2249, 2959, 2959, 2959, 1, 1268, 2248],
     [2958, 1270, 1270, 1270, 2250, 2250, 2250, 2960],
     [2960, 2960, 1, 1268, 2248, 2958, 1, 1272],
     [2252, 2962, 1271, 1271, 1271, 2251, 2251, 2251],
     [2961, 2961, 2961, 1, 1274, 2254, 2964, 1273],
     [1273, 1273, 2253, 2253, 2253, 2963, 2963, 2963],
     [1, 1274, 2254, 2964, 1275, 1275, 1275, 2255],
     [2255, 2255, 2965, 2965, 2965, 1, 1274, 2254],
     [2964, 1276, 1276, 1276, 2256, 2256, 2256, 2966],
     [2966, 2966, 1, 1274, 2254, 2964, 1, 1278],
     [2258, 2968, 1277, 1277, 1277, 2257, 2257, 2257],
     [2967, 2967, 2967, 1, 1280, 2260, 2970, 1279],
     [1279, 1279, 2259, 2259, 2259, 2969, 2969, 2969],
     [1, 1280, 2260, 2970, 1281, 1281, 1281, 2261],
     [2261, 2261, 2971, 2971, 2971, 1, 1280, 2260],
     [2970, 1282, 1282, 1282, 2262, 2262, 2262, 2972],
     [2972, 2972, 1, 1280, 2260, 2970, 1, 1284],
     [2264, 2974, 1283, 1283, 1283, 2263, 2263, 2263],
     [2973, 2973, 2973, 1, 1286, 2266, 2976, 1285],
     [1285, 1285, 2265, 2265, 2265, 2975, 2975, 2975],
     [1, 1286, 2266, 2976, 1287, 1287, 1287, 2267],
     [2267, 2267, 2977, 2977, 2977, 1, 1286, 2266],
     [2976, 1288, 1288, 1288, 2268, 2268, 2268, 2978],
     [2978, 2978, 1, 1286, 2266, 2976, 1, 1290],
     [2270, 2980, 1289, 1289, 1289, 2269, 2269, 2269],
     [2979, 2979, 2979, 1, 1292, 2272, 2982, 1291],
     [1291, 1291, 2271, 2271, 2271, 2981, 2981, 2981],
     [1, 1292, 2272, 2982, 1293, 1293, 1293, 2273],
     [2273, 2273, 2983, 2983, 2983, 1, 1292, 2272],
     [2982, 1294, 1294, 1294, 2274, 2274, 2274, 2984],
     [2984, 2984, 1, 1292, 2272, 2982, 1, 1296],
     [2276, 2986, 1295, 1295, 1295, 2275, 2275, 2275],
     [2985, 2985, 2985, 1, 1298, 2278, 2988, 1297],
     [1297, 1297, 2277, 2277, 2277, 2987, 2987, 2987],
     [1, 1298, 2278, 2988, 1299, 1299, 1299, 2279],
     [2279, 2279, 2989, 2989, 2989, 1, 1298, 2278],
     [2988, 1300, 1300, 1300, 2280, 2280, 2280, 2990],
     [2990, 2990, 1, 1298, 2278, 2988, 1, 1301],
     [1302, 1303, 1305, 2281, 2282, 2283, 2285, 2991],
     [2992, 2993, 2995, 1304, 1306, 1306, 2284, 2286],
     [2286, 2994, 2996, 2996, 1, 1307, 1309, 2287],
     [2289, 2997, 2999, 1308, 1308, 1308, 2288, 2288],
     [2288, 2998, 2998, 2998, 1, 1310, 1311, 1312],
     [2290, 2291, 2292, 3000, 3001, 3002, 1313, 2293],
     [3003, 1, 1314, 2294, 3004, 1, 1315, 1316],
     [1317, 2295, 2296, 2297, 3005, 3006, 3007, 1318],
     [2298, 3008, 1, 1319, 2299, 3009, 1, 1320],
     [1321, 1322, 2300, 2301, 2302, 3010, 3011, 3012],
     [1323, 2303, 3013, 1, 1324, 2304, 3014, 1],
     [1206, 1211, 2186, 2187, 2186, 2193, 1232, 2214],
     [2924, 1, 1324, 2304, 3014, 1323, 2303, 3013],
     [1, 1324, 2304, 3014, 1320, 2300, 3010, 1],
     [1325, 1324, 2305, 2304, 3015, 3014, 1323, 1320],
     [2303, 2300, 3013, 3010, 1, 1324, 2304, 3014],
     [1320, 2300, 3010, 1, 1319, 2299, 3009, 1318]]"

definition sup_indicies_19 :: "int list list" where
  "sup_indicies_19 =
    [[2298, 3008, 1, 1319, 2299, 3009, 1315, 2295],
     [3005, 1, 1319, 1326, 2299, 2306, 3009, 3016],
     [1318, 1315, 2298, 2295, 3008, 3005, 1, 1319],
     [2299, 3009, 1315, 2295, 3005, 1, 1314, 2294],
     [3004, 1313, 2293, 3003, 1, 1314, 2294, 3004],
     [1310, 2290, 3000, 1, 1314, 1327, 2294, 2307],
     [3004, 3017, 1313, 1310, 2293, 2290, 3003, 3000],
     [1, 1314, 2294, 3004, 1310, 2290, 3000, 1],
     [1309, 2289, 2999, 1328, 1328, 1328, 2308, 2308],
     [2308, 3018, 3018, 3018, 1, 1309, 2289, 2999],
     [1329, 1329, 1329, 2309, 2309, 2309, 3019, 3019],
     [3019, 1, 1309, 2289, 2999, 1, 1320, 2300],
     [3010, 1330, 1330, 1330, 2310, 2310, 2310, 3020],
     [3020, 3020, 1, 1324, 2304, 3014, 1331, 1331],
     [1331, 2311, 2311, 2311, 3021, 3021, 3021, 1],
     [1324, 2304, 3014, 1332, 1332, 1332, 2312, 2312],
     [2312, 3022, 3022, 3022, 1, 1324, 2304, 3014],
     [1320, 1320, 1320, 2300, 2300, 2300, 3010, 3010],
     [3010, 1, 1307, 1309, 2287, 2289, 2997, 2999],
     [1333, 1308, 1308, 2313, 2288, 2288, 3023, 2998],
     [2998, 1, 1307, 1309, 2287, 2289, 2997, 2999],
     [1334, 1328, 1328, 2314, 2308, 2308, 3024, 3018],
     [3018, 1, 1307, 1309, 2287, 2289, 2997, 2999],
     [1329, 1329, 1329, 2309, 2309, 2309, 3019, 3019],
     [3019, 1, 1307, 1335, 1309, 2287, 2315, 2289],
     [2997, 3025, 2999, 1333, 1336, 1308, 1308, 2313],
     [2316, 2288, 2288, 3023, 3026, 2998, 2998, 1],
     [1307, 1309, 2287, 2289, 2997, 2999, 1334, 1328],
     [1328, 1328, 2314, 2308, 2308, 2308, 3024, 3018],
     [3018, 3018, 1, 1307, 1309, 2287, 2289, 2997],
     [2999, 1328, 1328, 1328, 2308, 2308, 2308, 3018],
     [3018, 3018, 1, 1307, 1309, 2287, 2289, 2997],
     [2999, 1336, 1308, 1308, 2316, 2288, 2288, 3026],
     [2998, 2998, 1, 1324, 2304, 3014, 1330, 1330],
     [1330, 2310, 2310, 2310, 3020, 3020, 3020, 1],
     [1309, 2289, 2999, 1308, 1308, 1308, 2288, 2288],
     [2288, 2998, 2998, 2998, 1, 1337, 1338, 1339],
     [1324, 2317, 2318, 2319, 2304, 3027, 3028, 3029],
     [3014, 1340, 1341, 1341, 2320, 2321, 2321, 3030],
     [3031, 3031, 1, 1307, 1343, 1324, 2287, 2323],
     [2304, 2997, 3033, 3014, 1342, 1342, 1342, 2322],
     [2322, 2322, 3032, 3032, 3032, 1, 1343, 1324],
     [2323, 2304, 3033, 3014, 1344, 1344, 1344, 2324],
     [2324, 2324, 3034, 3034, 3034, 1, 1343, 1324],
     [2323, 2304, 3033, 3014, 1345, 1345, 1345, 2325],
     [2325, 2325, 3035, 3035, 3035, 1, 1343, 1324],
     [2323, 2304, 3033, 3014, 1, 1330, 1330, 1330],
     [2310, 2310, 2310, 3020, 3020, 3020, 1, 1307],
     [1343, 1324, 2287, 2323, 2304, 2997, 3033, 3014],
     [1346, 1342, 1342, 2326, 2322, 2322, 3036, 3032],
     [3032, 1, 1307, 1343, 1324, 2287, 2323, 2304],
     [2997, 3033, 3014, 1347, 1344, 1344, 2327, 2324],
     [2324, 3037, 3034, 3034, 1, 1307, 1343, 1324],
     [2287, 2323, 2304, 2997, 3033, 3014, 1345, 1345],
     [1345, 2325, 2325, 2325, 3035, 3035, 3035, 1],
     [1307, 1348, 1343, 1324, 2287, 2328, 2323, 2304],
     [2997, 3038, 3033, 3014, 1346, 1349, 1342, 1342],
     [2326, 2329, 2322, 2322, 3036, 3039, 3032, 3032],
     [1, 1307, 1343, 1324, 2287, 2323, 2304, 2997],
     [3033, 3014, 1347, 1344, 1344, 1344, 2327, 2324],
     [2324, 2324, 3037, 3034, 3034, 3034, 1, 1307],
     [1343, 1324, 2287, 2323, 2304, 2997, 3033, 3014],
     [1344, 1344, 1344, 2324, 2324, 2324, 3034, 3034],
     [3034, 1, 1307, 1343, 1324, 2287, 2323, 2304],
     [2997, 3033, 3014, 1349, 1342, 1342, 2329, 2322],
     [2322, 3039, 3032, 3032, 1, 1343, 1324, 2323],
     [2304, 3033, 3014, 1342, 1342, 1342, 2322, 2322],
     [2322, 3032, 3032, 3032, 1, 1350, 1351, 1352],
     [1324, 2330, 2331, 2332, 2304, 3040, 3041, 3042],
     [3014, 1353, 1354, 1354, 2333, 2334, 2334, 3043],
     [3044, 3044, 1, 1307, 1356, 1324, 2287, 2336],
     [2304, 2997, 3046, 3014, 1355, 1355, 1355, 2335],
     [2335, 2335, 3045, 3045, 3045, 1, 1356, 1324],
     [2336, 2304, 3046, 3014, 1357, 1357, 1357, 2337],
     [2337, 2337, 3047, 3047, 3047, 1, 1356, 1324],
     [2336, 2304, 3046, 3014, 1358, 1358, 1358, 2338],
     [2338, 2338, 3048, 3048, 3048, 1, 1356, 1324],
     [2336, 2304, 3046, 3014, 1, 1337, 1338, 1339],
     [2317, 2318, 2319, 3027, 3028, 3029, 1340, 1341],
     [1341, 2320, 2321, 2321, 3030, 3031, 3031, 1],
     [1307, 1356, 1324, 2287, 2336, 2304, 2997, 3046],
     [3014, 1359, 1355, 1355, 2339, 2335, 2335, 3049],
     [3045, 3045, 1, 1307, 1356, 1324, 2287, 2336],
     [2304, 2997, 3046, 3014, 1360, 1357, 1357, 2340],
     [2337, 2337, 3050, 3047, 3047, 1, 1307, 1356],
     [1324, 2287, 2336, 2304, 2997, 3046, 3014, 1358],
     [1358, 1358, 2338, 2338, 2338, 3048, 3048, 3048],
     [1, 1307, 1361, 1356, 1324, 2287, 2341, 2336],
     [2304, 2997, 3051, 3046, 3014, 1359, 1362, 1355],
     [1355, 2339, 2342, 2335, 2335, 3049, 3052, 3045],
     [3045, 1, 1307, 1356, 1324, 2287, 2336, 2304],
     [2997, 3046, 3014, 1360, 1357, 1357, 1357, 2340],
     [2337, 2337, 2337, 3050, 3047, 3047, 3047, 1],
     [1307, 1356, 1324, 2287, 2336, 2304, 2997, 3046],
     [3014, 1357, 1357, 1357, 2337, 2337, 2337, 3047],
     [3047, 3047, 1, 1307, 1356, 1324, 2287, 2336],
     [2304, 2997, 3046, 3014, 1362, 1355, 1355, 2342],
     [2335, 2335, 3052, 3045, 3045, 1, 1356, 1324],
     [2336, 2304, 3046, 3014, 1355, 1355, 1355, 2335],
     [2335, 2335, 3045, 3045, 3045, 1, 1363, 1364],
     [1365, 1324, 2343, 2344, 2345, 2304, 3053, 3054],
     [3055, 3014, 1366, 1367, 1367, 2346, 2347, 2347],
     [3056, 3057, 3057, 1, 1307, 1369, 1324, 2287],
     [2349, 2304, 2997, 3059, 3014, 1368, 1368, 1368],
     [2348, 2348, 2348, 3058, 3058, 3058, 1, 1369],
     [1324, 2349, 2304, 3059, 3014, 1370, 1370, 1370],
     [2350, 2350, 2350, 3060, 3060, 3060, 1, 1369],
     [1324, 2349, 2304, 3059, 3014, 1371, 1371, 1371],
     [2351, 2351, 2351, 3061, 3061, 3061, 1, 1369],
     [1324, 2349, 2304, 3059, 3014, 1, 1350, 1351],
     [1352, 2330, 2331, 2332, 3040, 3041, 3042, 1353],
     [1354, 1354, 2333, 2334, 2334, 3043, 3044, 3044],
     [1, 1307, 1369, 1324, 2287, 2349, 2304, 2997],
     [3059, 3014, 1372, 1368, 1368, 2352, 2348, 2348],
     [3062, 3058, 3058, 1, 1307, 1369, 1324, 2287],
     [2349, 2304, 2997, 3059, 3014, 1373, 1370, 1370],
     [2353, 2350, 2350, 3063, 3060, 3060, 1, 1307],
     [1369, 1324, 2287, 2349, 2304, 2997, 3059, 3014],
     [1371, 1371, 1371, 2351, 2351, 2351, 3061, 3061],
     [3061, 1, 1307, 1374, 1369, 1324, 2287, 2354],
     [2349, 2304, 2997, 3064, 3059, 3014, 1372, 1375],
     [1368, 1368, 2352, 2355, 2348, 2348, 3062, 3065],
     [3058, 3058, 1, 1307, 1369, 1324, 2287, 2349],
     [2304, 2997, 3059, 3014, 1373, 1370, 1370, 1370],
     [2353, 2350, 2350, 2350, 3063, 3060, 3060, 3060],
     [1, 1307, 1369, 1324, 2287, 2349, 2304, 2997],
     [3059, 3014, 1370, 1370, 1370, 2350, 2350, 2350],
     [3060, 3060, 3060, 1, 1307, 1369, 1324, 2287],
     [2349, 2304, 2997, 3059, 3014, 1375, 1368, 1368],
     [2355, 2348, 2348, 3065, 3058, 3058, 1, 1369],
     [1324, 2349, 2304, 3059, 3014, 1368, 1368, 1368],
     [2348, 2348, 2348, 3058, 3058, 3058, 1, 1376],
     [1377, 1378, 1324, 2356, 2357, 2358, 2304, 3066],
     [3067, 3068, 3014, 1379, 1380, 1380, 2359, 2360],
     [2360, 3069, 3070, 3070, 1, 1307, 1382, 1324],
     [2287, 2362, 2304, 2997, 3072, 3014, 1381, 1381],
     [1381, 2361, 2361, 2361, 3071, 3071, 3071, 1],
     [1382, 1324, 2362, 2304, 3072, 3014, 1383, 1383],
     [1383, 2363, 2363, 2363, 3073, 3073, 3073, 1],
     [1382, 1324, 2362, 2304, 3072, 3014, 1384, 1384],
     [1384, 2364, 2364, 2364, 3074, 3074, 3074, 1],
     [1382, 1324, 2362, 2304, 3072, 3014, 1, 1363],
     [1364, 1365, 2343, 2344, 2345, 3053, 3054, 3055],
     [1366, 1367, 1367, 2346, 2347, 2347, 3056, 3057],
     [3057, 1, 1307, 1382, 1324, 2287, 2362, 2304],
     [2997, 3072, 3014, 1385, 1381, 1381, 2365, 2361],
     [2361, 3075, 3071, 3071, 1, 1307, 1382, 1324],
     [2287, 2362, 2304, 2997, 3072, 3014, 1386, 1383],
     [1383, 2366, 2363, 2363, 3076, 3073, 3073, 1],
     [1307, 1382, 1324, 2287, 2362, 2304, 2997, 3072]]"

definition sup_indicies_20 :: "int list list" where
  "sup_indicies_20 =
    [[3014, 1384, 1384, 1384, 2364, 2364, 2364, 3074],
     [3074, 3074, 1, 1307, 1387, 1382, 1324, 2287],
     [2367, 2362, 2304, 2997, 3077, 3072, 3014, 1385],
     [1388, 1381, 1381, 2365, 2368, 2361, 2361, 3075],
     [3078, 3071, 3071, 1, 1307, 1382, 1324, 2287],
     [2362, 2304, 2997, 3072, 3014, 1386, 1383, 1383],
     [1383, 2366, 2363, 2363, 2363, 3076, 3073, 3073],
     [3073, 1, 1307, 1382, 1324, 2287, 2362, 2304],
     [2997, 3072, 3014, 1383, 1383, 1383, 2363, 2363],
     [2363, 3073, 3073, 3073, 1, 1307, 1382, 1324],
     [2287, 2362, 2304, 2997, 3072, 3014, 1388, 1381],
     [1381, 2368, 2361, 2361, 3078, 3071, 3071, 1],
     [1382, 1324, 2362, 2304, 3072, 3014, 1381, 1381],
     [1381, 2361, 2361, 2361, 3071, 3071, 3071, 1],
     [1389, 1390, 1391, 1324, 2369, 2370, 2371, 2304],
     [3079, 3080, 3081, 3014, 1392, 1393, 1393, 2372],
     [2373, 2373, 3082, 3083, 3083, 1, 1307, 1395],
     [1324, 2287, 2375, 2304, 2997, 3085, 3014, 1394],
     [1394, 1394, 2374, 2374, 2374, 3084, 3084, 3084],
     [1, 1395, 1324, 2375, 2304, 3085, 3014, 1396],
     [1396, 1396, 2376, 2376, 2376, 3086, 3086, 3086],
     [1, 1395, 1324, 2375, 2304, 3085, 3014, 1397],
     [1397, 1397, 2377, 2377, 2377, 3087, 3087, 3087],
     [1, 1395, 1324, 2375, 2304, 3085, 3014, 1],
     [1376, 1377, 1378, 2356, 2357, 2358, 3066, 3067],
     [3068, 1379, 1380, 1380, 2359, 2360, 2360, 3069],
     [3070, 3070, 1, 1307, 1395, 1324, 2287, 2375],
     [2304, 2997, 3085, 3014, 1398, 1394, 1394, 2378],
     [2374, 2374, 3088, 3084, 3084, 1, 1307, 1395],
     [1324, 2287, 2375, 2304, 2997, 3085, 3014, 1399],
     [1396, 1396, 2379, 2376, 2376, 3089, 3086, 3086],
     [1, 1307, 1395, 1324, 2287, 2375, 2304, 2997],
     [3085, 3014, 1397, 1397, 1397, 2377, 2377, 2377],
     [3087, 3087, 3087, 1, 1307, 1400, 1395, 1324],
     [2287, 2380, 2375, 2304, 2997, 3090, 3085, 3014],
     [1398, 1401, 1394, 1394, 2378, 2381, 2374, 2374],
     [3088, 3091, 3084, 3084, 1, 1307, 1395, 1324],
     [2287, 2375, 2304, 2997, 3085, 3014, 1399, 1396],
     [1396, 1396, 2379, 2376, 2376, 2376, 3089, 3086],
     [3086, 3086, 1, 1307, 1395, 1324, 2287, 2375],
     [2304, 2997, 3085, 3014, 1396, 1396, 1396, 2376],
     [2376, 2376, 3086, 3086, 3086, 1, 1307, 1395],
     [1324, 2287, 2375, 2304, 2997, 3085, 3014, 1401],
     [1394, 1394, 2381, 2374, 2374, 3091, 3084, 3084],
     [1, 1395, 1324, 2375, 2304, 3085, 3014, 1394],
     [1394, 1394, 2374, 2374, 2374, 3084, 3084, 3084],
     [1, 1402, 2382, 3092, 1, 1403, 1404, 1405],
     [1324, 2383, 2384, 2385, 2304, 3093, 3094, 3095],
     [3014, 1406, 1407, 1407, 2386, 2387, 2387, 3096],
     [3097, 3097, 1, 1307, 1409, 1324, 2287, 2389],
     [2304, 2997, 3099, 3014, 1408, 1408, 1408, 2388],
     [2388, 2388, 3098, 3098, 3098, 1, 1409, 1324],
     [2389, 2304, 3099, 3014, 1410, 1410, 1410, 2390],
     [2390, 2390, 3100, 3100, 3100, 1, 1409, 1324],
     [2389, 2304, 3099, 3014, 1411, 1411, 1411, 2391],
     [2391, 2391, 3101, 3101, 3101, 1, 1409, 1324],
     [2389, 2304, 3099, 3014, 1, 1389, 1390, 1391],
     [2369, 2370, 2371, 3079, 3080, 3081, 1392, 1393],
     [1393, 2372, 2373, 2373, 3082, 3083, 3083, 1],
     [1307, 1409, 1324, 2287, 2389, 2304, 2997, 3099],
     [3014, 1412, 1408, 1408, 2392, 2388, 2388, 3102],
     [3098, 3098, 1, 1307, 1409, 1324, 2287, 2389],
     [2304, 2997, 3099, 3014, 1413, 1410, 1410, 2393],
     [2390, 2390, 3103, 3100, 3100, 1, 1307, 1409],
     [1324, 2287, 2389, 2304, 2997, 3099, 3014, 1411],
     [1411, 1411, 2391, 2391, 2391, 3101, 3101, 3101],
     [1, 1307, 1414, 1409, 1324, 2287, 2394, 2389],
     [2304, 2997, 3104, 3099, 3014, 1412, 1415, 1408],
     [1408, 2392, 2395, 2388, 2388, 3102, 3105, 3098],
     [3098, 1, 1307, 1409, 1324, 2287, 2389, 2304],
     [2997, 3099, 3014, 1413, 1410, 1410, 1410, 2393],
     [2390, 2390, 2390, 3103, 3100, 3100, 3100, 1],
     [1307, 1409, 1324, 2287, 2389, 2304, 2997, 3099],
     [3014, 1410, 1410, 1410, 2390, 2390, 2390, 3100],
     [3100, 3100, 1, 1307, 1409, 1324, 2287, 2389],
     [2304, 2997, 3099, 3014, 1415, 1408, 1408, 2395],
     [2388, 2388, 3105, 3098, 3098, 1, 1409, 1324],
     [2389, 2304, 3099, 3014, 1408, 1408, 1408, 2388],
     [2388, 2388, 3098, 3098, 3098, 1, 1416, 1416],
     [1416, 2396, 2396, 2396, 3106, 3106, 3106, 1],
     [1207, 1207, 1207, 2188, 2188, 2188, 2898, 2898],
     [2898, 1, 1206, 1213, 1211, 2186, 2187, 2186],
     [1213, 1417, 1211, 1213, 1214, 1213, 1213, 2195],
     [2397, 2192, 2192, 2193, 2195, 2196, 2195, 2195],
     [2905, 3107, 2902, 2902, 3108, 2905, 2906, 2905],
     [2905, 1213, 1213, 1211, 1213, 1213, 2195, 2195],
     [2195, 2195, 2905, 2905, 2905, 2905, 1, 1418],
     [1418, 1418, 2398, 2398, 2398, 3109, 3109, 3109],
     [1, 1213, 1213, 1213, 2195, 2195, 2195, 2905],
     [2905, 2905, 1, 1206, 1211, 1211, 2186, 2187],
     [2186, 1211, 1242, 1211, 1211, 1211, 2192, 2399],
     [2193, 2192, 2192, 2192, 2902, 3110, 3108, 2902],
     [2902, 2902, 1211, 1211, 1211, 1211, 2192, 2192],
     [2192, 2192, 2902, 2902, 2902, 2902, 1, 1243],
     [1243, 1243, 2400, 2400, 2400, 3111, 3111, 3111],
     [1, 1211, 1211, 1211, 2192, 2192, 2192, 2902],
     [2902, 2902, 1, 1206, 1211, 1211, 1211, 1211],
     [1211, 61, 67, 61, 68, 1211, 1242, 1211],
     [1211, 1211, 68, 68, 68, 68, 68, 3112],
     [3113, 3112, 3112, 3112, 1211, 1211, 1211, 1211],
     [1211, 1211, 1211, 1211, 68, 68, 68, 68],
     [68, 3112, 3112, 3112, 3112, 3112, 1, 1206],
     [1211, 1211, 1211, 1211, 1211, 71, 72, 71],
     [68, 1211, 1242, 1211, 1211, 1211, 1211, 1211],
     [68, 68, 68, 61, 73, 68, 68, 3112],
     [3113, 3112, 3114, 3115, 3112, 3112, 1211, 1211],
     [1211, 1211, 1211, 1211, 1211, 68, 68, 68],
     [68, 68, 3112, 3112, 3112, 3112, 3112, 1],
     [58, 71, 72, 71, 68, 68, 68, 61],
     [73, 68, 68, 68, 68, 68, 68, 1243],
     [1243, 1243, 68, 68, 68, 3116, 3116, 3116],
     [1, 58, 71, 72, 71, 68, 68, 68],
     [61, 73, 68, 68, 68, 68, 68, 68],
     [1211, 1211, 1211, 68, 68, 68, 3112, 3112],
     [3112, 1, 1206, 1211, 1211, 1211, 1211, 1211],
     [73, 76, 73, 78, 79, 77, 1211, 1242],
     [1211, 1211, 1211, 77, 77, 77, 77, 77],
     [3117, 3118, 3117, 3117, 3117, 1211, 1211, 1211],
     [1211, 1211, 1211, 1211, 1211, 77, 77, 77],
     [77, 77, 3117, 3117, 3117, 3117, 3117, 1],
     [1206, 1211, 1211, 1211, 1211, 1211, 1211, 82],
     [64, 82, 77, 1211, 1242, 1211, 1211, 1211],
     [1211, 77, 77, 77, 61, 77, 77, 3117],
     [3118, 3117, 3114, 3117, 3117, 1211, 1211, 1211],
     [1211, 1211, 1211, 1211, 77, 77, 77, 77],
     [77, 3117, 3117, 3117, 3117, 3117, 1, 58],
     [82, 64, 82, 77, 77, 77, 61, 77],
     [77, 77, 77, 77, 77, 1243, 1243, 1243],
     [77, 77, 77, 3119, 3119, 3119, 1, 58],
     [82, 64, 82, 77, 77, 77, 61, 77],
     [77, 77, 77, 77, 77, 1211, 1211, 1211],
     [77, 77, 77, 3117, 3117, 3117, 1, 1206],
     [1211, 1211, 2186, 2187, 2186, 1211, 1242, 1211],
     [1212, 1211, 1211, 2192, 2399, 2193, 2192, 2194],
     [2192, 2192, 2902, 3110, 3108, 2902, 2904, 2902],
     [2902, 1211, 1211, 1211, 1211, 2192, 2192, 2192],
     [2192, 2902, 2902, 2902, 2902, 1, 1206, 1208],
     [1207, 1207, 1207, 1207, 1213, 1207, 1207, 1207],
     [1214, 61, 67, 61, 68, 1207, 1209, 1207],
     [1207, 1207, 68, 68, 68, 68, 68, 3120],
     [3121, 3120, 3120, 3120, 1207, 1207, 1207, 1207],
     [1207, 1207, 68, 68, 68, 68, 68, 3120],
     [3120, 3120, 3120, 3120, 1, 1206, 1208, 1207],
     [1207, 1207, 1207, 1213, 1207, 1214, 71, 72],
     [71, 68, 1207, 1209, 1207, 1207, 1207, 1207],
     [1207, 68, 68, 68, 61, 73, 68, 68],
     [3120, 3121, 3120, 3122, 3123, 3120, 3120, 1207],
     [1207, 1207, 1207, 1207, 1207, 68, 68, 68],
     [68, 68, 3120, 3120, 3120, 3120, 3120, 1],
     [58, 71, 72, 71, 68, 68, 68, 61]]"

definition sup_indicies_21 :: "int list list" where
  "sup_indicies_21 =
    [[73, 68, 68, 68, 68, 68, 68, 1416],
     [1416, 1416, 68, 68, 68, 3124, 3124, 3124],
     [1, 58, 71, 72, 71, 68, 68, 68],
     [61, 73, 68, 68, 68, 68, 68, 68],
     [1207, 1207, 1207, 68, 68, 68, 3120, 3120],
     [3120, 1, 1206, 1208, 1207, 1207, 1207, 1207],
     [1213, 1207, 1207, 1207, 1214, 73, 76, 73],
     [78, 79, 77, 1207, 1209, 1207, 1207, 1207],
     [77, 77, 77, 77, 77, 3125, 3126, 3125],
     [3125, 3125, 1207, 1207, 1207, 1207, 1207, 1207],
     [77, 77, 77, 77, 77, 3125, 3125, 3125],
     [3125, 3125, 1, 1206, 1208, 1207, 1207, 1207],
     [1207, 1213, 1207, 1207, 1214, 82, 64, 82],
     [77, 1207, 1209, 1207, 1207, 1207, 1207, 77],
     [77, 77, 61, 77, 77, 3125, 3126, 3125],
     [3122, 3125, 3125, 1207, 1207, 1207, 1207, 1207],
     [1207, 77, 77, 77, 77, 77, 3125, 3125],
     [3125, 3125, 3125, 1, 58, 82, 64, 82],
     [77, 77, 77, 61, 77, 77, 77, 77],
     [77, 77, 1416, 1416, 1416, 77, 77, 77],
     [3127, 3127, 3127, 1, 58, 82, 64, 82],
     [77, 77, 77, 61, 77, 77, 77, 77],
     [77, 77, 1207, 1207, 1207, 77, 77, 77],
     [3125, 3125, 3125, 1, 1206, 1207, 1207, 2186],
     [2187, 2186, 1207, 1208, 1209, 1419, 1213, 1207],
     [1214, 1207, 1207, 2188, 2189, 2190, 2401, 2195],
     [2193, 2188, 2196, 2188, 2188, 2898, 2899, 2900],
     [3128, 2905, 2903, 2898, 2906, 2898, 2898, 1207],
     [1207, 1207, 1207, 2188, 2188, 2188, 2188, 2898],
     [2898, 2898, 2898, 1, 1206, 1420, 1420, 2186],
     [2187, 2186, 1420, 1421, 1422, 1213, 1420, 1214],
     [1423, 1420, 1420, 2402, 2403, 2404, 2195, 2193],
     [2402, 2196, 2405, 2402, 2402, 3129, 3130, 3131],
     [2905, 3132, 3129, 2906, 3133, 3129, 3129, 1420],
     [1420, 1420, 1420, 2402, 2402, 2402, 2402, 3129],
     [3129, 3129, 3129, 1, 1206, 1420, 1420, 2186],
     [2187, 2186, 1420, 1421, 1422, 1424, 1420, 1425],
     [1420, 1420, 2402, 2403, 2404, 2406, 2193, 2402],
     [2407, 2402, 2402, 3129, 3130, 3131, 3134, 3132],
     [3129, 3135, 3129, 3129, 1420, 1420, 1420, 1420],
     [2402, 2402, 2402, 2402, 3129, 3129, 3129, 3129],
     [1, 1421, 1421, 1421, 1421, 1426, 1427, 1421],
     [1428, 1421, 1421, 2403, 2408, 2409, 2403, 2410],
     [2403, 2403, 3130, 3136, 3137, 3130, 3138, 3130],
     [3130, 1421, 1421, 1421, 1421, 2403, 2403, 2403],
     [2403, 3130, 3130, 3130, 3130, 1, 1429, 1429],
     [1429, 2411, 2411, 2411, 3139, 3139, 3139, 1],
     [1421, 1421, 1421, 2403, 2403, 2403, 3130, 3130],
     [3130, 1, 1427, 1427, 1430, 1427, 1428, 1427],
     [1427, 2409, 2412, 2409, 2410, 2409, 2409, 3137],
     [3140, 3137, 3138, 3137, 3137, 1427, 1427, 1427],
     [1427, 1427, 2409, 2409, 2409, 2409, 2409, 3137],
     [3137, 3137, 3137, 3137, 1, 1431, 1431, 1431],
     [2413, 2413, 2413, 3141, 3141, 3141, 1, 1427],
     [1427, 1427, 2409, 2409, 2409, 3137, 3137, 3137],
     [1, 1432, 1433, 1434, 1423, 2414, 2415, 2416],
     [2405, 3142, 3143, 3144, 3133, 1435, 1436, 1436],
     [2417, 2418, 2418, 3145, 3146, 3146, 1, 1437],
     [1438, 1437, 2419, 2420, 2419, 3147, 3148, 3147],
     [1439, 1439, 1439, 2421, 2421, 2421, 3149, 3149],
     [3149, 1, 1437, 1437, 2419, 2419, 3147, 3147],
     [1439, 1439, 1439, 2421, 2421, 2421, 3149, 3149],
     [3149, 1, 1437, 1440, 1437, 2419, 2422, 2419],
     [3147, 3150, 3147, 1439, 1439, 1439, 2421, 2421],
     [2421, 3149, 3149, 3149, 1, 1439, 1436, 1436],
     [2421, 2418, 2418, 3149, 3146, 3146, 1, 1206],
     [1211, 2186, 2187, 2186, 2193, 1441, 1442, 1211],
     [1443, 1441, 2423, 2424, 2192, 2425, 2423, 3151],
     [3152, 2902, 3153, 3151, 1436, 1436, 1436, 2418],
     [2418, 2418, 3146, 3146, 3146, 1, 1441, 1441],
     [2423, 2423, 3151, 3151, 1436, 1436, 1436, 2418],
     [2418, 2418, 3146, 3146, 3146, 1, 1206, 1211],
     [2186, 2187, 2186, 2193, 1211, 1443, 2192, 2425],
     [2902, 3153, 1439, 1436, 1436, 2421, 2418, 2418],
     [3149, 3146, 3146, 1, 1444, 1446, 2426, 2428],
     [3154, 3156, 1445, 1447, 2427, 2429, 3155, 3157],
     [1, 1448, 2430, 3158, 1449, 2431, 3159, 1],
     [1450, 2432, 3160, 1451, 2433, 3161, 1, 1452],
     [2434, 3162, 1, 1206, 1211, 2186, 2187, 2186],
     [2193, 1211, 2192, 2902, 1, 1206, 1211, 2186],
     [2187, 2186, 2193, 1211, 2192, 2902, 1452, 2434],
     [3162, 1, 1206, 1211, 2186, 2187, 2186, 2193],
     [1211, 2192, 2902, 1451, 2433, 3161, 1, 1206],
     [1211, 2186, 2187, 2186, 2193, 1211, 2192, 2902],
     [1447, 2429, 3157, 1, 1206, 1211, 2186, 2187],
     [2186, 2193, 1211, 2192, 2902, 1449, 2431, 3159],
     [1, 1206, 1211, 2186, 2187, 2186, 2193, 1211],
     [1453, 2192, 2435, 2902, 3163, 1447, 1449, 2429],
     [2431, 3157, 3159, 1, 1206, 1211, 2186, 2187],
     [2186, 2193, 1211, 1454, 2192, 2436, 2902, 3164],
     [1449, 1451, 2431, 2433, 3159, 3161, 1, 1206],
     [1211, 2186, 2187, 2186, 2193, 1211, 1455, 2192],
     [2437, 2902, 3165, 1451, 1452, 2433, 2434, 3161],
     [3162, 1, 1206, 1211, 2186, 2187, 2186, 2193],
     [1211, 2192, 2902, 1452, 2434, 3162, 1, 1456],
     [1457, 1458, 2438, 2439, 2440, 3166, 3167, 3168],
     [1459, 1436, 1436, 2441, 2418, 2418, 3169, 3146],
     [3146, 1, 1437, 1460, 1437, 2419, 2442, 2419],
     [3147, 3170, 3147, 1439, 1439, 1439, 2421, 2421],
     [2421, 3149, 3149, 3149, 1, 1461, 1462, 1463],
     [2443, 2444, 2445, 3171, 3172, 3173, 1464, 1436],
     [1436, 2446, 2418, 2418, 3174, 3146, 3146, 1],
     [1437, 1465, 1437, 2419, 2447, 2419, 3147, 3175],
     [3147, 1439, 1439, 1439, 2421, 2421, 2421, 3149],
     [3149, 3149, 1, 1466, 1467, 1468, 2448, 2449],
     [2450, 3176, 3177, 3178, 1469, 1436, 1436, 2451],
     [2418, 2418, 3179, 3146, 3146, 1, 1206, 1211],
     [2186, 2187, 2186, 2193, 1437, 1440, 1211, 1443],
     [1437, 2419, 2422, 2192, 2425, 2419, 3147, 3150],
     [2902, 3153, 3147, 1439, 1439, 1439, 2421, 2421],
     [2421, 3149, 3149, 3149, 1, 1206, 1211, 2186],
     [2187, 2186, 2193, 1437, 1440, 1211, 1443, 1437],
     [2419, 2422, 2192, 2425, 2419, 3147, 3150, 2902],
     [3153, 3147, 1469, 1439, 1439, 2451, 2421, 2421],
     [3179, 3149, 3149, 1, 1206, 1211, 2186, 2187],
     [2186, 2193, 1437, 1440, 1211, 1443, 1437, 2419],
     [2422, 2192, 2425, 2419, 3147, 3150, 2902, 3153],
     [3147, 1466, 1439, 1439, 2448, 2421, 2421, 3176],
     [3149, 3149, 1, 1206, 1211, 2186, 2187, 2186],
     [2193, 1437, 1440, 1211, 1470, 1443, 1437, 2419],
     [2422, 2192, 2452, 2425, 2419, 3147, 3150, 2902],
     [3180, 3153, 3147, 1469, 1466, 1439, 1439, 2451],
     [2448, 2421, 2421, 3179, 3176, 3149, 3149, 1],
     [1206, 1211, 2186, 2187, 2186, 2193, 1437, 1440],
     [1211, 1443, 1437, 2419, 2422, 2192, 2425, 2419],
     [3147, 3150, 2902, 3153, 3147, 1466, 1439, 1439],
     [1439, 2448, 2421, 2421, 2421, 3176, 3149, 3149],
     [3149, 1, 1437, 1465, 1437, 2419, 2447, 2419],
     [3147, 3175, 3147, 1464, 1439, 1439, 2446, 2421],
     [2421, 3174, 3149, 3149, 1, 1437, 1465, 1437],
     [2419, 2447, 2419, 3147, 3175, 3147, 1461, 1439],
     [1439, 2443, 2421, 2421, 3171, 3149, 3149, 1],
     [1437, 1465, 1471, 1437, 2419, 2447, 2453, 2419],
     [3147, 3175, 3181, 3147, 1464, 1461, 1439, 1439],
     [2446, 2443, 2421, 2421, 3174, 3171, 3149, 3149],
     [1, 1437, 1465, 1437, 2419, 2447, 2419, 3147],
     [3175, 3147, 1461, 1439, 1439, 1439, 2443, 2421],
     [2421, 2421, 3171, 3149, 3149, 3149, 1, 1437],
     [1460, 1437, 2419, 2442, 2419, 3147, 3170, 3147],
     [1459, 1439, 1439, 2441, 2421, 2421, 3169, 3149],
     [3149, 1, 1437, 1460, 1437, 2419, 2442, 2419],
     [3147, 3170, 3147, 1456, 1439, 1439, 2438, 2421],
     [2421, 3166, 3149, 3149, 1, 1437, 1460, 1472],
     [1437, 2419, 2442, 2454, 2419, 3147, 3170, 3182],
     [3147, 1459, 1456, 1439, 1439, 2441, 2438, 2421],
     [2421, 3169, 3166, 3149, 3149, 1, 1437, 1460],
     [1437, 2419, 2442, 2419, 3147, 3170, 3147, 1456],
     [1439, 1439, 1439, 2438, 2421, 2421, 2421, 3166],
     [3149, 3149, 3149, 1, 1437, 1438, 1437, 2419],
     [2420, 2419, 3147, 3148, 3147, 1435, 1439, 1439]]"

definition sup_indicies_22 :: "int list list" where
  "sup_indicies_22 =
    [[2417, 2421, 2421, 3145, 3149, 3149, 1, 1437],
     [1438, 1437, 2419, 2420, 2419, 3147, 3148, 3147],
     [1432, 1439, 1439, 2414, 2421, 2421, 3142, 3149],
     [3149, 1, 1437, 1438, 1473, 1437, 2419, 2420],
     [2455, 2419, 3147, 3148, 3183, 3147, 1435, 1432],
     [1439, 1439, 2417, 2414, 2421, 2421, 3145, 3142],
     [3149, 3149, 1, 1437, 1438, 1437, 2419, 2420],
     [2419, 3147, 3148, 3147, 1432, 1439, 1439, 1439],
     [2414, 2421, 2421, 2421, 3142, 3149, 3149, 3149],
     [1, 1475, 2457, 3185, 1474, 1474, 1474, 2456],
     [2456, 2456, 3184, 3184, 3184, 1, 1477, 2459],
     [3187, 1476, 1476, 1476, 2458, 2458, 2458, 3186],
     [3186, 3186, 1, 1477, 2459, 3187, 1478, 1478],
     [1478, 2460, 2460, 2460, 3188, 3188, 3188, 1],
     [1477, 2459, 3187, 1479, 1479, 1479, 2461, 2461],
     [2461, 3189, 3189, 3189, 1, 1477, 2459, 3187],
     [1, 1481, 2463, 3191, 1480, 1480, 1480, 2462],
     [2462, 2462, 3190, 3190, 3190, 1, 1483, 2465],
     [3193, 1482, 1482, 1482, 2464, 2464, 2464, 3192],
     [3192, 3192, 1, 1483, 2465, 3193, 1484, 1484],
     [1484, 2466, 2466, 2466, 3194, 3194, 3194, 1],
     [1483, 2465, 3193, 1485, 1485, 1485, 2467, 2467],
     [2467, 3195, 3195, 3195, 1, 1483, 2465, 3193],
     [1, 1487, 2469, 3197, 1486, 1486, 1486, 2468],
     [2468, 2468, 3196, 3196, 3196, 1, 1489, 2471],
     [3199, 1488, 1488, 1488, 2470, 2470, 2470, 3198],
     [3198, 3198, 1, 1489, 2471, 3199, 1490, 1490],
     [1490, 2472, 2472, 2472, 3200, 3200, 3200, 1],
     [1489, 2471, 3199, 1491, 1491, 1491, 2473, 2473],
     [2473, 3201, 3201, 3201, 1, 1489, 2471, 3199],
     [1, 1493, 2475, 3203, 1492, 1492, 1492, 2474],
     [2474, 2474, 3202, 3202, 3202, 1, 1495, 2477],
     [3205, 1494, 1494, 1494, 2476, 2476, 2476, 3204],
     [3204, 3204, 1, 1495, 2477, 3205, 1496, 1496],
     [1496, 2478, 2478, 2478, 3206, 3206, 3206, 1],
     [1495, 2477, 3205, 1497, 1497, 1497, 2479, 2479],
     [2479, 3207, 3207, 3207, 1, 1495, 2477, 3205],
     [1, 1499, 2481, 3209, 1498, 1498, 1498, 2480],
     [2480, 2480, 3208, 3208, 3208, 1, 1501, 2483],
     [3211, 1500, 1500, 1500, 2482, 2482, 2482, 3210],
     [3210, 3210, 1, 1501, 2483, 3211, 1502, 1502],
     [1502, 2484, 2484, 2484, 3212, 3212, 3212, 1],
     [1501, 2483, 3211, 1503, 1503, 1503, 2485, 2485],
     [2485, 3213, 3213, 3213, 1, 1501, 2483, 3211],
     [1, 1505, 2487, 3215, 1504, 1504, 1504, 2486],
     [2486, 2486, 3214, 3214, 3214, 1, 1507, 2489],
     [3217, 1506, 1506, 1506, 2488, 2488, 2488, 3216],
     [3216, 3216, 1, 1507, 2489, 3217, 1508, 1508],
     [1508, 2490, 2490, 2490, 3218, 3218, 3218, 1],
     [1507, 2489, 3217, 1509, 1509, 1509, 2491, 2491],
     [2491, 3219, 3219, 3219, 1, 1507, 2489, 3217],
     [1, 1510, 1511, 1512, 1514, 2492, 2493, 2494],
     [2496, 3220, 3221, 3222, 3224, 1513, 1515, 1515],
     [2495, 2497, 2497, 3223, 3225, 3225, 1, 1516],
     [1518, 2498, 2500, 3226, 3228, 1517, 1517, 1517],
     [2499, 2499, 2499, 3227, 3227, 3227, 1, 1519],
     [1520, 1521, 2501, 2502, 2503, 3229, 3230, 3231],
     [1522, 2504, 3232, 1, 1523, 2505, 3233, 1],
     [1524, 1525, 1526, 2506, 2507, 2508, 3234, 3235],
     [3236, 1527, 2509, 3237, 1, 1528, 2510, 3238],
     [1, 1529, 1530, 1531, 2511, 2512, 2513, 3239],
     [3240, 3241, 1532, 2514, 3242, 1, 1533, 2515],
     [3243, 1, 1206, 1211, 2186, 2187, 2186, 2193],
     [1211, 1443, 2192, 2425, 2902, 3153, 1, 1533],
     [2515, 3243, 1532, 2514, 3242, 1, 1533, 2515],
     [3243, 1529, 2511, 3239, 1, 1534, 1533, 2516],
     [2515, 3244, 3243, 1532, 1529, 2514, 2511, 3242],
     [3239, 1, 1533, 2515, 3243, 1529, 2511, 3239],
     [1, 1528, 2510, 3238, 1527, 2509, 3237, 1],
     [1528, 2510, 3238, 1524, 2506, 3234, 1, 1528],
     [1535, 2510, 2517, 3238, 3245, 1527, 1524, 2509],
     [2506, 3237, 3234, 1, 1528, 2510, 3238, 1524],
     [2506, 3234, 1, 1523, 2505, 3233, 1522, 2504],
     [3232, 1, 1523, 2505, 3233, 1519, 2501, 3229],
     [1, 1523, 1536, 2505, 2518, 3233, 3246, 1522],
     [1519, 2504, 2501, 3232, 3229, 1, 1523, 2505],
     [3233, 1519, 2501, 3229, 1, 1518, 2500, 3228],
     [1537, 1537, 1537, 2519, 2519, 2519, 3247, 3247],
     [3247, 1, 1518, 2500, 3228, 1538, 1538, 1538],
     [2520, 2520, 2520, 3248, 3248, 3248, 1, 1518],
     [2500, 3228, 1, 1529, 2511, 3239, 1539, 1539],
     [1539, 2521, 2521, 2521, 3249, 3249, 3249, 1],
     [1533, 2515, 3243, 1540, 1540, 1540, 2522, 2522],
     [2522, 3250, 3250, 3250, 1, 1533, 2515, 3243],
     [1541, 1541, 1541, 2523, 2523, 2523, 3251, 3251],
     [3251, 1, 1533, 2515, 3243, 1529, 1529, 1529],
     [2511, 2511, 2511, 3239, 3239, 3239, 1, 1516],
     [1518, 2498, 2500, 3226, 3228, 1542, 1517, 1517],
     [2524, 2499, 2499, 3252, 3227, 3227, 1, 1516],
     [1518, 2498, 2500, 3226, 3228, 1543, 1537, 1537],
     [2525, 2519, 2519, 3253, 3247, 3247, 1, 1516],
     [1518, 2498, 2500, 3226, 3228, 1538, 1538, 1538],
     [2520, 2520, 2520, 3248, 3248, 3248, 1, 1516],
     [1544, 1518, 2498, 2526, 2500, 3226, 3254, 3228],
     [1542, 1545, 1517, 1517, 2524, 2527, 2499, 2499],
     [3252, 3255, 3227, 3227, 1, 1516, 1518, 2498],
     [2500, 3226, 3228, 1543, 1537, 1537, 1537, 2525],
     [2519, 2519, 2519, 3253, 3247, 3247, 3247, 1],
     [1516, 1518, 2498, 2500, 3226, 3228, 1537, 1537],
     [1537, 2519, 2519, 2519, 3247, 3247, 3247, 1],
     [1516, 1518, 2498, 2500, 3226, 3228, 1545, 1517],
     [1517, 2527, 2499, 2499, 3255, 3227, 3227, 1],
     [1533, 2515, 3243, 1539, 1539, 1539, 2521, 2521],
     [2521, 3249, 3249, 3249, 1, 1518, 2500, 3228],
     [1517, 1517, 1517, 2499, 2499, 2499, 3227, 3227],
     [3227, 1, 1546, 1547, 1548, 1533, 2528, 2529],
     [2530, 2515, 3256, 3257, 3258, 3243, 1549, 1550],
     [1550, 2531, 2532, 2532, 3259, 3260, 3260, 1],
     [1516, 1552, 1533, 2498, 2534, 2515, 3226, 3262],
     [3243, 1551, 1551, 1551, 2533, 2533, 2533, 3261],
     [3261, 3261, 1, 1552, 1533, 2534, 2515, 3262],
     [3243, 1553, 1553, 1553, 2535, 2535, 2535, 3263],
     [3263, 3263, 1, 1552, 1533, 2534, 2515, 3262],
     [3243, 1554, 1554, 1554, 2536, 2536, 2536, 3264],
     [3264, 3264, 1, 1552, 1533, 2534, 2515, 3262],
     [3243, 1, 1539, 1539, 1539, 2521, 2521, 2521],
     [3249, 3249, 3249, 1, 1516, 1552, 1533, 2498],
     [2534, 2515, 3226, 3262, 3243, 1555, 1551, 1551],
     [2537, 2533, 2533, 3265, 3261, 3261, 1, 1516],
     [1552, 1533, 2498, 2534, 2515, 3226, 3262, 3243],
     [1556, 1553, 1553, 2538, 2535, 2535, 3266, 3263],
     [3263, 1, 1516, 1552, 1533, 2498, 2534, 2515],
     [3226, 3262, 3243, 1554, 1554, 1554, 2536, 2536],
     [2536, 3264, 3264, 3264, 1, 1516, 1557, 1552],
     [1533, 2498, 2539, 2534, 2515, 3226, 3267, 3262],
     [3243, 1555, 1558, 1551, 1551, 2537, 2540, 2533],
     [2533, 3265, 3268, 3261, 3261, 1, 1516, 1552],
     [1533, 2498, 2534, 2515, 3226, 3262, 3243, 1556],
     [1553, 1553, 1553, 2538, 2535, 2535, 2535, 3266],
     [3263, 3263, 3263, 1, 1516, 1552, 1533, 2498],
     [2534, 2515, 3226, 3262, 3243, 1553, 1553, 1553],
     [2535, 2535, 2535, 3263, 3263, 3263, 1, 1516],
     [1552, 1533, 2498, 2534, 2515, 3226, 3262, 3243],
     [1558, 1551, 1551, 2540, 2533, 2533, 3268, 3261],
     [3261, 1, 1552, 1533, 2534, 2515, 3262, 3243],
     [1551, 1551, 1551, 2533, 2533, 2533, 3261, 3261],
     [3261, 1, 1559, 1560, 1561, 1533, 2541, 2542],
     [2543, 2515, 3269, 3270, 3271, 3243, 1562, 1563],
     [1563, 2544, 2545, 2545, 3272, 3273, 3273, 1],
     [1516, 1565, 1533, 2498, 2547, 2515, 3226, 3275],
     [3243, 1564, 1564, 1564, 2546, 2546, 2546, 3274],
     [3274, 3274, 1, 1565, 1533, 2547, 2515, 3275],
     [3243, 1566, 1566, 1566, 2548, 2548, 2548, 3276],
     [3276, 3276, 1, 1565, 1533, 2547, 2515, 3275],
     [3243, 1567, 1567, 1567, 2549, 2549, 2549, 3277],
     [3277, 3277, 1, 1565, 1533, 2547, 2515, 3275],
     [3243, 1, 1546, 1547, 1548, 2528, 2529, 2530],
     [3256, 3257, 3258, 1549, 1550, 1550, 2531, 2532],
     [2532, 3259, 3260, 3260, 1, 1516, 1565, 1533],
     [2498, 2547, 2515, 3226, 3275, 3243, 1568, 1564]]"

definition sup_indicies_23 :: "int list list" where
  "sup_indicies_23 =
    [[1564, 2550, 2546, 2546, 3278, 3274, 3274, 1],
     [1516, 1565, 1533, 2498, 2547, 2515, 3226, 3275],
     [3243, 1569, 1566, 1566, 2551, 2548, 2548, 3279],
     [3276, 3276, 1, 1516, 1565, 1533, 2498, 2547],
     [2515, 3226, 3275, 3243, 1567, 1567, 1567, 2549],
     [2549, 2549, 3277, 3277, 3277, 1, 1516, 1570],
     [1565, 1533, 2498, 2552, 2547, 2515, 3226, 3280],
     [3275, 3243, 1568, 1571, 1564, 1564, 2550, 2553],
     [2546, 2546, 3278, 3281, 3274, 3274, 1, 1516],
     [1565, 1533, 2498, 2547, 2515, 3226, 3275, 3243],
     [1569, 1566, 1566, 1566, 2551, 2548, 2548, 2548],
     [3279, 3276, 3276, 3276, 1, 1516, 1565, 1533],
     [2498, 2547, 2515, 3226, 3275, 3243, 1566, 1566],
     [1566, 2548, 2548, 2548, 3276, 3276, 3276, 1],
     [1516, 1565, 1533, 2498, 2547, 2515, 3226, 3275],
     [3243, 1571, 1564, 1564, 2553, 2546, 2546, 3281],
     [3274, 3274, 1, 1565, 1533, 2547, 2515, 3275],
     [3243, 1564, 1564, 1564, 2546, 2546, 2546, 3274],
     [3274, 3274, 1, 1572, 1573, 1574, 1533, 2554],
     [2555, 2556, 2515, 3282, 3283, 3284, 3243, 1575],
     [1576, 1576, 2557, 2558, 2558, 3285, 3286, 3286],
     [1, 1516, 1578, 1533, 2498, 2560, 2515, 3226],
     [3288, 3243, 1577, 1577, 1577, 2559, 2559, 2559],
     [3287, 3287, 3287, 1, 1578, 1533, 2560, 2515],
     [3288, 3243, 1579, 1579, 1579, 2561, 2561, 2561],
     [3289, 3289, 3289, 1, 1578, 1533, 2560, 2515],
     [3288, 3243, 1580, 1580, 1580, 2562, 2562, 2562],
     [3290, 3290, 3290, 1, 1578, 1533, 2560, 2515],
     [3288, 3243, 1, 1559, 1560, 1561, 2541, 2542],
     [2543, 3269, 3270, 3271, 1562, 1563, 1563, 2544],
     [2545, 2545, 3272, 3273, 3273, 1, 1516, 1578],
     [1533, 2498, 2560, 2515, 3226, 3288, 3243, 1581],
     [1577, 1577, 2563, 2559, 2559, 3291, 3287, 3287],
     [1, 1516, 1578, 1533, 2498, 2560, 2515, 3226],
     [3288, 3243, 1582, 1579, 1579, 2564, 2561, 2561],
     [3292, 3289, 3289, 1, 1516, 1578, 1533, 2498],
     [2560, 2515, 3226, 3288, 3243, 1580, 1580, 1580],
     [2562, 2562, 2562, 3290, 3290, 3290, 1, 1516],
     [1583, 1578, 1533, 2498, 2565, 2560, 2515, 3226],
     [3293, 3288, 3243, 1581, 1584, 1577, 1577, 2563],
     [2566, 2559, 2559, 3291, 3294, 3287, 3287, 1],
     [1516, 1578, 1533, 2498, 2560, 2515, 3226, 3288],
     [3243, 1582, 1579, 1579, 1579, 2564, 2561, 2561],
     [2561, 3292, 3289, 3289, 3289, 1, 1516, 1578],
     [1533, 2498, 2560, 2515, 3226, 3288, 3243, 1579],
     [1579, 1579, 2561, 2561, 2561, 3289, 3289, 3289],
     [1, 1516, 1578, 1533, 2498, 2560, 2515, 3226],
     [3288, 3243, 1584, 1577, 1577, 2566, 2559, 2559],
     [3294, 3287, 3287, 1, 1578, 1533, 2560, 2515],
     [3288, 3243, 1577, 1577, 1577, 2559, 2559, 2559],
     [3287, 3287, 3287, 1, 1585, 1586, 1587, 1533],
     [2567, 2568, 2569, 2515, 3295, 3296, 3297, 3243],
     [1588, 1589, 1589, 2570, 2571, 2571, 3298, 3299],
     [3299, 1, 1516, 1591, 1533, 2498, 2573, 2515],
     [3226, 3301, 3243, 1590, 1590, 1590, 2572, 2572],
     [2572, 3300, 3300, 3300, 1, 1591, 1533, 2573],
     [2515, 3301, 3243, 1592, 1592, 1592, 2574, 2574],
     [2574, 3302, 3302, 3302, 1, 1591, 1533, 2573],
     [2515, 3301, 3243, 1593, 1593, 1593, 2575, 2575],
     [2575, 3303, 3303, 3303, 1, 1591, 1533, 2573],
     [2515, 3301, 3243, 1, 1572, 1573, 1574, 2554],
     [2555, 2556, 3282, 3283, 3284, 1575, 1576, 1576],
     [2557, 2558, 2558, 3285, 3286, 3286, 1, 1516],
     [1591, 1533, 2498, 2573, 2515, 3226, 3301, 3243],
     [1594, 1590, 1590, 2576, 2572, 2572, 3304, 3300],
     [3300, 1, 1516, 1591, 1533, 2498, 2573, 2515],
     [3226, 3301, 3243, 1595, 1592, 1592, 2577, 2574],
     [2574, 3305, 3302, 3302, 1, 1516, 1591, 1533],
     [2498, 2573, 2515, 3226, 3301, 3243, 1593, 1593],
     [1593, 2575, 2575, 2575, 3303, 3303, 3303, 1],
     [1516, 1596, 1591, 1533, 2498, 2578, 2573, 2515],
     [3226, 3306, 3301, 3243, 1594, 1597, 1590, 1590],
     [2576, 2579, 2572, 2572, 3304, 3307, 3300, 3300],
     [1, 1516, 1591, 1533, 2498, 2573, 2515, 3226],
     [3301, 3243, 1595, 1592, 1592, 1592, 2577, 2574],
     [2574, 2574, 3305, 3302, 3302, 3302, 1, 1516],
     [1591, 1533, 2498, 2573, 2515, 3226, 3301, 3243],
     [1592, 1592, 1592, 2574, 2574, 2574, 3302, 3302],
     [3302, 1, 1516, 1591, 1533, 2498, 2573, 2515],
     [3226, 3301, 3243, 1597, 1590, 1590, 2579, 2572],
     [2572, 3307, 3300, 3300, 1, 1591, 1533, 2573],
     [2515, 3301, 3243, 1590, 1590, 1590, 2572, 2572],
     [2572, 3300, 3300, 3300, 1, 1598, 1599, 1600],
     [1533, 2580, 2581, 2582, 2515, 3308, 3309, 3310],
     [3243, 1601, 1602, 1602, 2583, 2584, 2584, 3311],
     [3312, 3312, 1, 1516, 1604, 1533, 2498, 2586],
     [2515, 3226, 3314, 3243, 1603, 1603, 1603, 2585],
     [2585, 2585, 3313, 3313, 3313, 1, 1604, 1533],
     [2586, 2515, 3314, 3243, 1605, 1605, 1605, 2587],
     [2587, 2587, 3315, 3315, 3315, 1, 1604, 1533],
     [2586, 2515, 3314, 3243, 1606, 1606, 1606, 2588],
     [2588, 2588, 3316, 3316, 3316, 1, 1604, 1533],
     [2586, 2515, 3314, 3243, 1, 1585, 1586, 1587],
     [2567, 2568, 2569, 3295, 3296, 3297, 1588, 1589],
     [1589, 2570, 2571, 2571, 3298, 3299, 3299, 1],
     [1516, 1604, 1533, 2498, 2586, 2515, 3226, 3314],
     [3243, 1607, 1603, 1603, 2589, 2585, 2585, 3317],
     [3313, 3313, 1, 1516, 1604, 1533, 2498, 2586],
     [2515, 3226, 3314, 3243, 1608, 1605, 1605, 2590],
     [2587, 2587, 3318, 3315, 3315, 1, 1516, 1604],
     [1533, 2498, 2586, 2515, 3226, 3314, 3243, 1606],
     [1606, 1606, 2588, 2588, 2588, 3316, 3316, 3316],
     [1, 1516, 1609, 1604, 1533, 2498, 2591, 2586],
     [2515, 3226, 3319, 3314, 3243, 1607, 1610, 1603],
     [1603, 2589, 2592, 2585, 2585, 3317, 3320, 3313],
     [3313, 1, 1516, 1604, 1533, 2498, 2586, 2515],
     [3226, 3314, 3243, 1608, 1605, 1605, 1605, 2590],
     [2587, 2587, 2587, 3318, 3315, 3315, 3315, 1],
     [1516, 1604, 1533, 2498, 2586, 2515, 3226, 3314],
     [3243, 1605, 1605, 1605, 2587, 2587, 2587, 3315],
     [3315, 3315, 1, 1516, 1604, 1533, 2498, 2586],
     [2515, 3226, 3314, 3243, 1610, 1603, 1603, 2592],
     [2585, 2585, 3320, 3313, 3313, 1, 1604, 1533],
     [2586, 2515, 3314, 3243, 1603, 1603, 1603, 2585],
     [2585, 2585, 3313, 3313, 3313, 1, 1611, 2593],
     [3321, 1, 1612, 1613, 1614, 1533, 2594, 2595],
     [2596, 2515, 3322, 3323, 3324, 3243, 1615, 1616],
     [1616, 2597, 2598, 2598, 3325, 3326, 3326, 1],
     [1516, 1618, 1533, 2498, 2600, 2515, 3226, 3328],
     [3243, 1617, 1617, 1617, 2599, 2599, 2599, 3327],
     [3327, 3327, 1, 1618, 1533, 2600, 2515, 3328],
     [3243, 1619, 1619, 1619, 2601, 2601, 2601, 3329],
     [3329, 3329, 1, 1618, 1533, 2600, 2515, 3328],
     [3243, 1620, 1620, 1620, 2602, 2602, 2602, 3330],
     [3330, 3330, 1, 1618, 1533, 2600, 2515, 3328],
     [3243, 1, 1598, 1599, 1600, 2580, 2581, 2582],
     [3308, 3309, 3310, 1601, 1602, 1602, 2583, 2584],
     [2584, 3311, 3312, 3312, 1, 1516, 1618, 1533],
     [2498, 2600, 2515, 3226, 3328, 3243, 1621, 1617],
     [1617, 2603, 2599, 2599, 3331, 3327, 3327, 1],
     [1516, 1618, 1533, 2498, 2600, 2515, 3226, 3328],
     [3243, 1622, 1619, 1619, 2604, 2601, 2601, 3332],
     [3329, 3329, 1, 1516, 1618, 1533, 2498, 2600],
     [2515, 3226, 3328, 3243, 1620, 1620, 1620, 2602],
     [2602, 2602, 3330, 3330, 3330, 1, 1516, 1623],
     [1618, 1533, 2498, 2605, 2600, 2515, 3226, 3333],
     [3328, 3243, 1621, 1624, 1617, 1617, 2603, 2606],
     [2599, 2599, 3331, 3334, 3327, 3327, 1, 1516],
     [1618, 1533, 2498, 2600, 2515, 3226, 3328, 3243],
     [1622, 1619, 1619, 1619, 2604, 2601, 2601, 2601],
     [3332, 3329, 3329, 3329, 1, 1516, 1618, 1533],
     [2498, 2600, 2515, 3226, 3328, 3243, 1619, 1619],
     [1619, 2601, 2601, 2601, 3329, 3329, 3329, 1],
     [1516, 1618, 1533, 2498, 2600, 2515, 3226, 3328],
     [3243, 1624, 1617, 1617, 2606, 2599, 2599, 3334],
     [3327, 3327, 1, 1618, 1533, 2600, 2515, 3328],
     [3243, 1617, 1617, 1617, 2599, 2599, 2599, 3327],
     [3327, 3327, 1, 1625, 1625, 1625, 2607, 2607],
     [2607, 3335, 3335, 3335, 1, 1420, 1420, 1420],
     [2402, 2402, 2402, 3129, 3129, 3129, 1, 1206]]"

definition sup_indicies_24 :: "int list list" where
  "sup_indicies_24 =
    [[1424, 1211, 2186, 2187, 2186, 1424, 1626, 1211],
     [1424, 1425, 1424, 1424, 2406, 2608, 2192, 2192],
     [2193, 2406, 2407, 2406, 2406, 3134, 3336, 2902],
     [2902, 3108, 3134, 3135, 3134, 3134, 1424, 1424],
     [1211, 1424, 1424, 2406, 2406, 2406, 2406, 3134],
     [3134, 3134, 3134, 1, 1627, 1627, 1627, 2609],
     [2609, 2609, 3337, 3337, 3337, 1, 1424, 1424],
     [1424, 2406, 2406, 2406, 3134, 3134, 3134, 1],
     [1206, 1211, 1211, 2186, 2187, 2186, 1211, 1242],
     [1211, 1423, 1211, 1211, 2192, 2399, 2193, 2192],
     [2405, 2192, 2192, 2902, 3110, 3108, 2902, 3133],
     [2902, 2902, 1211, 1211, 1211, 1211, 2192, 2192],
     [2192, 2192, 2902, 2902, 2902, 2902, 1, 1206],
     [1421, 1420, 1420, 1420, 1420, 1424, 1420, 1420],
     [1420, 1425, 61, 67, 61, 68, 1420, 1422],
     [1420, 1420, 1420, 68, 68, 68, 68, 68],
     [3338, 3339, 3338, 3338, 3338, 1420, 1420, 1420],
     [1420, 1420, 1420, 68, 68, 68, 68, 68],
     [3338, 3338, 3338, 3338, 3338, 1, 1206, 1421],
     [1420, 1420, 1420, 1420, 1424, 1420, 1425, 71],
     [72, 71, 68, 1420, 1422, 1420, 1420, 1420],
     [1420, 1420, 68, 68, 68, 61, 73, 68],
     [68, 3338, 3339, 3338, 3340, 3341, 3338, 3338],
     [1420, 1420, 1420, 1420, 1420, 1420, 68, 68],
     [68, 68, 68, 3338, 3338, 3338, 3338, 3338],
     [1, 58, 71, 72, 71, 68, 68, 68],
     [61, 73, 68, 68, 68, 68, 68, 68],
     [1625, 1625, 1625, 68, 68, 68, 3342, 3342],
     [3342, 1, 58, 71, 72, 71, 68, 68],
     [68, 61, 73, 68, 68, 68, 68, 68],
     [68, 1420, 1420, 1420, 68, 68, 68, 3338],
     [3338, 3338, 1, 1206, 1421, 1420, 1420, 1420],
     [1420, 1424, 1420, 1420, 1420, 1425, 73, 76],
     [73, 78, 79, 77, 1420, 1422, 1420, 1420],
     [1420, 77, 77, 77, 77, 77, 3343, 3344],
     [3343, 3343, 3343, 1420, 1420, 1420, 1420, 1420],
     [1420, 77, 77, 77, 77, 77, 3343, 3343],
     [3343, 3343, 3343, 1, 1206, 1421, 1420, 1420],
     [1420, 1420, 1424, 1420, 1420, 1425, 82, 64],
     [82, 77, 1420, 1422, 1420, 1420, 1420, 1420],
     [77, 77, 77, 61, 77, 77, 3343, 3344],
     [3343, 3340, 3343, 3343, 1420, 1420, 1420, 1420],
     [1420, 1420, 77, 77, 77, 77, 77, 3343],
     [3343, 3343, 3343, 3343, 1, 58, 82, 64],
     [82, 77, 77, 77, 61, 77, 77, 77],
     [77, 77, 77, 1625, 1625, 1625, 77, 77],
     [77, 3345, 3345, 3345, 1, 58, 82, 64],
     [82, 77, 77, 77, 61, 77, 77, 77],
     [77, 77, 77, 1420, 1420, 1420, 77, 77],
     [77, 3343, 3343, 3343, 1, 1184, 1185, 1184],
     [1186, 1186, 1186, 1186, 1187, 1186, 1204, 1205],
     [1628, 1628, 2184, 2185, 2610, 2610, 2896, 2897],
     [3346, 3346, 1186, 1204, 1204, 1204, 1204, 2184],
     [2184, 2184, 2184, 2896, 2896, 2896, 2896, 1],
     [1184, 1185, 1184, 1186, 1186, 1186, 1186, 1187],
     [1186, 1204, 1205, 1629, 1629, 2184, 2185, 2611],
     [2611, 2896, 2897, 3347, 3347, 1186, 1204, 1204],
     [1204, 1204, 2184, 2184, 2184, 2184, 2896, 2896],
     [2896, 2896, 1, 1184, 1185, 1184, 1186, 1186],
     [1186, 1186, 1187, 1186, 1204, 1630, 1631, 1631],
     [2184, 2612, 2613, 2613, 2896, 3348, 3349, 3349],
     [1186, 1204, 1204, 1204, 1204, 2184, 2184, 2184],
     [2184, 2896, 2896, 2896, 2896, 1, 1632, 1632],
     [1632, 1632, 1633, 1634, 1635, 1636, 1632, 1639],
     [1632, 1632, 2614, 2615, 2616, 2617, 2618, 2614],
     [2621, 2614, 2614, 3350, 3351, 3352, 3353, 3354],
     [3350, 3357, 3350, 3350, 1632, 1632, 1637, 1638],
     [1638, 2614, 2614, 2619, 2620, 2620, 3350, 3350],
     [3355, 3356, 3356, 1, 1640, 1640, 1640, 1640],
     [1641, 1642, 1640, 1643, 1640, 1640, 2622, 2623],
     [2624, 2622, 2625, 2622, 2622, 3358, 3359, 3360],
     [3358, 3361, 3358, 3358, 1640, 1640, 1640, 1640],
     [2622, 2622, 2622, 2622, 3358, 3358, 3358, 3358],
     [1, 1644, 1644, 1644, 2626, 2626, 2626, 3362],
     [3362, 3362, 1, 1640, 1640, 1640, 2622, 2622],
     [2622, 3358, 3358, 3358, 1, 1642, 1642, 1645],
     [1642, 1643, 1642, 1642, 2624, 2627, 2624, 2625],
     [2624, 2624, 3360, 3363, 3360, 3361, 3360, 3360],
     [1642, 1642, 1642, 1642, 1642, 2624, 2624, 2624],
     [2624, 2624, 3360, 3360, 3360, 3360, 3360, 1],
     [1646, 1646, 1646, 2628, 2628, 2628, 3364, 3364],
     [3364, 1, 1642, 1642, 1642, 2624, 2624, 2624],
     [3360, 3360, 3360, 1, 1647, 1648, 1649, 1639],
     [2629, 2630, 2631, 2621, 3365, 3366, 3367, 3357],
     [1650, 1651, 1651, 2632, 2633, 2633, 3368, 3369],
     [3369, 1, 1652, 1653, 1652, 2634, 2635, 2634],
     [3370, 3371, 3370, 1654, 1654, 1654, 2636, 2636],
     [2636, 3372, 3372, 3372, 1, 1652, 1652, 2634],
     [2634, 3370, 3370, 1654, 1654, 1654, 2636, 2636],
     [2636, 3372, 3372, 3372, 1, 1652, 1655, 1652],
     [2634, 2637, 2634, 3370, 3373, 3370, 1654, 1654],
     [1654, 2636, 2636, 2636, 3372, 3372, 3372, 1],
     [1654, 1656, 1656, 2636, 2638, 2638, 3372, 3374],
     [3374, 1, 1657, 1662, 2639, 2640, 2639, 1658],
     [1659, 1660, 1661, 1658, 2641, 2642, 2643, 2644],
     [2641, 3375, 3376, 3377, 3378, 3375, 1656, 1656],
     [1656, 2638, 2638, 2638, 3374, 3374, 3374, 1],
     [1658, 1658, 2641, 2641, 3375, 3375, 1656, 1656],
     [1656, 2638, 2638, 2638, 3374, 3374, 3374, 1],
     [1657, 1662, 2639, 2640, 2639, 1660, 1661, 2643],
     [2644, 3377, 3378, 1654, 1656, 1656, 2636, 2638],
     [2638, 3372, 3374, 3374, 1, 1663, 1665, 2645],
     [2647, 3379, 3381, 1664, 1666, 2646, 2648, 3380],
     [3382, 1, 1667, 2649, 3383, 1668, 2650, 3384],
     [1, 1669, 2651, 3385, 1670, 2652, 3386, 1],
     [1671, 2653, 3387, 1, 1672, 1674, 2654, 2655],
     [2654, 1673, 2656, 3388, 1, 1675, 1675, 1675],
     [1675, 1675, 1675, 61, 67, 61, 68, 1675],
     [1676, 1675, 1677, 1678, 1679, 1675, 1677, 1678],
     [1679, 1675, 68, 68, 68, 68, 68, 3389],
     [3390, 3389, 3391, 3392, 3393, 3389, 3391, 3392],
     [3393, 3389, 1675, 1675, 1675, 1675, 1675, 1675],
     [68, 68, 68, 68, 68, 3389, 3389, 3389],
     [3389, 3389, 1, 1680, 1681, 1681, 1681, 1681],
     [1685, 1681, 1681, 71, 72, 71, 68, 1681],
     [1682, 1681, 1683, 1684, 1681, 1681, 68, 68],
     [68, 61, 73, 68, 68, 3394, 3395, 3394],
     [3396, 3397, 3394, 3394, 1681, 1681, 1681, 1681],
     [1681, 1681, 68, 68, 68, 68, 68, 3394],
     [3394, 3394, 3394, 3394, 1, 58, 71, 72],
     [71, 68, 68, 68, 61, 73, 68, 68],
     [68, 68, 68, 68, 1686, 1686, 1686, 68],
     [68, 68, 3398, 3398, 3398, 1, 58, 71],
     [72, 71, 68, 68, 68, 61, 73, 68],
     [68, 68, 68, 68, 68, 1681, 1681, 1681],
     [68, 68, 68, 3394, 3394, 3394, 1, 1680],
     [1687, 1687, 1687, 1687, 1683, 1689, 1685, 1687],
     [73, 76, 73, 78, 77, 1687, 1688, 1687],
     [1687, 1687, 77, 77, 77, 79, 77, 77],
     [3399, 3400, 3399, 3401, 3399, 3399, 1687, 1687],
     [1687, 1687, 1687, 1687, 77, 77, 77, 77],
     [77, 3399, 3399, 3399, 3399, 3399, 1, 1690],
     [1691, 1691, 1691, 1691, 1694, 1691, 1691, 82],
     [64, 82, 77, 1691, 1692, 1691, 1693, 1691],
     [1691, 77, 77, 77, 61, 77, 77, 3402],
     [3403, 3402, 3404, 3402, 3402, 1691, 1691, 1691],
     [1691, 1691, 1691, 77, 77, 77, 77, 77],
     [3402, 3402, 3402, 3402, 3402, 1, 58, 82],
     [64, 82, 77, 77, 77, 61, 77, 77],
     [77, 77, 77, 77, 1695, 1695, 1695, 77],
     [77, 77, 3405, 3405, 3405, 1, 58, 82],
     [64, 82, 77, 77, 77, 61, 77, 77],
     [77, 77, 77, 77, 1691, 1691, 1691, 77],
     [77, 77, 3402, 3402, 3402, 1, 1690, 1691],
     [1692, 1693, 1694, 1691, 1691, 1691, 93, 3407],
     [1691, 1691, 1691, 1691, 1691, 1691, 1691, 92],
     [92, 92, 3406, 3406, 3406, 1, 1690, 1691],
     [1692, 1693, 1694, 1691, 1691, 1691, 95, 3409],
     [1691, 1691, 1691, 1691, 1691, 1691, 1691, 94],
     [94, 94, 3408, 3408, 3408, 1, 1690, 1691]]"

definition sup_indicies_25 :: "int list list" where
  "sup_indicies_25 =
    [[1692, 1693, 1694, 1691, 1691, 1691, 95, 3409],
     [1691, 1691, 1691, 1691, 1691, 1691, 1691, 96],
     [96, 96, 3410, 3410, 3410, 1, 1690, 1691],
     [1692, 1693, 1694, 1691, 1691, 1691, 95, 3409],
     [1691, 1691, 1691, 1691, 1691, 1691, 1691, 97],
     [97, 97, 3411, 3411, 3411, 1, 1690, 1691],
     [1692, 1693, 1694, 1691, 1691, 1691, 1691, 95],
     [3409, 1691, 1691, 1691, 1691, 1, 1690, 1691],
     [1692, 1693, 1694, 1691, 1691, 1691, 99, 3413],
     [1691, 1691, 1691, 1691, 1691, 1691, 1691, 98],
     [98, 98, 3412, 3412, 3412, 1, 1690, 1691],
     [1692, 1693, 1694, 1691, 1691, 1691, 101, 3415],
     [1691, 1691, 1691, 1691, 1691, 1691, 1691, 100],
     [100, 100, 3414, 3414, 3414, 1, 1690, 1691],
     [1692, 1693, 1694, 1691, 1691, 1691, 101, 3415],
     [1691, 1691, 1691, 1691, 1691, 1691, 1691, 102],
     [102, 102, 3416, 3416, 3416, 1, 1690, 1691],
     [1692, 1693, 1694, 1691, 1691, 1691, 101, 3415],
     [1691, 1691, 1691, 1691, 1691, 1691, 1691, 103],
     [103, 103, 3417, 3417, 3417, 1, 1690, 1691],
     [1692, 1693, 1694, 1691, 1691, 1691, 1691, 101],
     [3415, 1691, 1691, 1691, 1691, 1, 1690, 1691],
     [1692, 1693, 1694, 1691, 1691, 1691, 105, 3419],
     [1691, 1691, 1691, 1691, 1691, 1691, 1691, 104],
     [104, 104, 3418, 3418, 3418, 1, 1690, 1691],
     [1692, 1693, 1694, 1691, 1691, 1691, 107, 3421],
     [1691, 1691, 1691, 1691, 1691, 1691, 1691, 106],
     [106, 106, 3420, 3420, 3420, 1, 1690, 1691],
     [1692, 1693, 1694, 1691, 1691, 1691, 107, 3421],
     [1691, 1691, 1691, 1691, 1691, 1691, 1691, 108],
     [108, 108, 3422, 3422, 3422, 1, 1690, 1691],
     [1692, 1693, 1694, 1691, 1691, 1691, 107, 3421],
     [1691, 1691, 1691, 1691, 1691, 1691, 1691, 109],
     [109, 109, 3423, 3423, 3423, 1, 1690, 1691],
     [1692, 1693, 1694, 1691, 1691, 1691, 1691, 107],
     [3421, 1691, 1691, 1691, 1691, 1, 1690, 1691],
     [1692, 1693, 1694, 1691, 1691, 1691, 111, 3425],
     [1691, 1691, 1691, 1691, 1691, 1691, 1691, 110],
     [110, 110, 3424, 3424, 3424, 1, 1690, 1691],
     [1692, 1693, 1694, 1691, 1691, 1691, 113, 3427],
     [1691, 1691, 1691, 1691, 1691, 1691, 1691, 112],
     [112, 112, 3426, 3426, 3426, 1, 1690, 1691],
     [1692, 1693, 1694, 1691, 1691, 1691, 113, 3427],
     [1691, 1691, 1691, 1691, 1691, 1691, 1691, 114],
     [114, 114, 3428, 3428, 3428, 1, 1690, 1691],
     [1692, 1693, 1694, 1691, 1691, 1691, 113, 3427],
     [1691, 1691, 1691, 1691, 1691, 1691, 1691, 115],
     [115, 115, 3429, 3429, 3429, 1, 1690, 1691],
     [1692, 1693, 1694, 1691, 1691, 1691, 1691, 113],
     [3427, 1691, 1691, 1691, 1691, 1, 1690, 1691],
     [1692, 1693, 1694, 1691, 1691, 1691, 117, 3431],
     [1691, 1691, 1691, 1691, 1691, 1691, 1691, 116],
     [116, 116, 3430, 3430, 3430, 1, 1690, 1691],
     [1692, 1693, 1694, 1691, 1691, 1691, 119, 3433],
     [1691, 1691, 1691, 1691, 1691, 1691, 1691, 118],
     [118, 118, 3432, 3432, 3432, 1, 1690, 1691],
     [1692, 1693, 1694, 1691, 1691, 1691, 119, 3433],
     [1691, 1691, 1691, 1691, 1691, 1691, 1691, 120],
     [120, 120, 3434, 3434, 3434, 1, 1690, 1691],
     [1692, 1693, 1694, 1691, 1691, 1691, 119, 3433],
     [1691, 1691, 1691, 1691, 1691, 1691, 1691, 121],
     [121, 121, 3435, 3435, 3435, 1, 1690, 1691],
     [1692, 1693, 1694, 1691, 1691, 1691, 1691, 119],
     [3433, 1691, 1691, 1691, 1691, 1, 1690, 1691],
     [1692, 1693, 1694, 1691, 1691, 1691, 123, 3437],
     [1691, 1691, 1691, 1691, 1691, 1691, 1691, 122],
     [122, 122, 3436, 3436, 3436, 1, 1690, 1691],
     [1692, 1693, 1694, 1691, 1691, 1691, 125, 3439],
     [1691, 1691, 1691, 1691, 1691, 1691, 1691, 124],
     [124, 124, 3438, 3438, 3438, 1, 1690, 1691],
     [1692, 1693, 1694, 1691, 1691, 1691, 125, 3439],
     [1691, 1691, 1691, 1691, 1691, 1691, 1691, 126],
     [126, 126, 3440, 3440, 3440, 1, 1690, 1691],
     [1692, 1693, 1694, 1691, 1691, 1691, 125, 3439],
     [1691, 1691, 1691, 1691, 1691, 1691, 1691, 127],
     [127, 127, 3441, 3441, 3441, 1, 1690, 1691],
     [1692, 1693, 1694, 1691, 1691, 1691, 1691, 125],
     [3439, 1691, 1691, 1691, 1691, 1, 1690, 1691],
     [1692, 1693, 1694, 1691, 1691, 1691, 128, 129],
     [130, 132, 3442, 3443, 3444, 3446, 1691, 1691],
     [1691, 1691, 1691, 1691, 1691, 131, 133, 133],
     [3445, 3447, 3447, 1, 1690, 1691, 1692, 1691],
     [1691, 1693, 1694, 1691, 1691, 1691, 1691, 134],
     [136, 3448, 3450, 1691, 1691, 1691, 1691, 1691],
     [1691, 135, 135, 135, 3449, 3449, 3449, 1],
     [1690, 1691, 1692, 1691, 1693, 1694, 1691, 1691],
     [1691, 137, 138, 139, 3451, 3452, 3453, 1691],
     [1691, 1691, 1691, 1691, 140, 3454, 1, 1690],
     [1691, 1692, 1691, 1693, 1694, 1691, 1691, 1691],
     [1691, 141, 3455, 1691, 1691, 1691, 1691, 1],
     [1690, 1691, 1692, 1691, 1693, 1694, 1691, 1691],
     [1691, 142, 143, 144, 3456, 3457, 3458, 1691],
     [1691, 1691, 1691, 1691, 145, 3459, 1, 1690],
     [1691, 1692, 1691, 1693, 1694, 1691, 1691, 1691],
     [1691, 146, 3460, 1691, 1691, 1691, 1691, 1],
     [1690, 1691, 1692, 1691, 1693, 1694, 1691, 1691],
     [1691, 147, 148, 149, 3461, 3462, 3463, 1691],
     [1691, 1691, 1691, 1691, 150, 3464, 1, 1690],
     [1691, 1692, 1693, 1694, 1691, 1691, 1691, 89],
     [3465, 1691, 1691, 1691, 1691, 1, 1690, 1691],
     [1692, 1694, 1691, 1691, 1691, 82, 64, 82],
     [1693, 61, 3404, 1691, 1691, 1691, 1691, 1],
     [1690, 1691, 1692, 1691, 1693, 1694, 1691, 1691],
     [1691, 89, 3465, 1691, 1691, 1691, 1691, 1691],
     [150, 3464, 1, 1690, 1691, 1692, 1691, 1693],
     [1694, 1691, 1691, 1691, 89, 3465, 1691, 1691],
     [1691, 1691, 1691, 147, 3461, 1, 1690, 1691],
     [1692, 1691, 1693, 1694, 1691, 1691, 1691, 151],
     [89, 3466, 3465, 1691, 1691, 1691, 1691, 1691],
     [150, 147, 3464, 3461, 1, 1690, 1691, 1692],
     [1693, 1694, 1691, 1691, 1691, 89, 3465, 1691],
     [1691, 1691, 1691, 1691, 1691, 147, 3461, 1],
     [1690, 1691, 1692, 1691, 1691, 1691, 1693, 1694],
     [1691, 1691, 1691, 1691, 146, 3460, 1691, 1691],
     [1691, 1691, 145, 3459, 1, 1690, 1691, 1692],
     [1691, 1691, 1691, 1693, 1694, 1691, 1691, 1691],
     [1691, 146, 3460, 1691, 1691, 1691, 1691, 142],
     [3456, 1, 1690, 1691, 1692, 1691, 1691, 1691],
     [1693, 1694, 1691, 1691, 1691, 1691, 146, 152],
     [3460, 3467, 1691, 1691, 1691, 1691, 145, 142],
     [3459, 3456, 1, 1690, 1691, 1692, 1691, 1691],
     [1693, 1694, 1691, 1691, 1691, 1691, 146, 3460],
     [1691, 1691, 1691, 1691, 1691, 142, 3456, 1],
     [1690, 1691, 1692, 1691, 1691, 1691, 1693, 1694],
     [1691, 1691, 1691, 1691, 141, 3455, 1691, 1691],
     [1691, 1691, 140, 3454, 1, 1690, 1691, 1692],
     [1691, 1691, 1691, 1693, 1694, 1691, 1691, 1691],
     [1691, 141, 3455, 1691, 1691, 1691, 1691, 137],
     [3451, 1, 1690, 1691, 1692, 1691, 1691, 1691],
     [1693, 1694, 1691, 1691, 1691, 1691, 141, 153],
     [3455, 3468, 1691, 1691, 1691, 1691, 140, 137],
     [3454, 3451, 1, 1690, 1691, 1692, 1691, 1691],
     [1693, 1694, 1691, 1691, 1691, 1691, 141, 3455],
     [1691, 1691, 1691, 1691, 1691, 137, 3451, 1],
     [1690, 1691, 1692, 1693, 1694, 1691, 1691, 1691],
     [136, 3450, 1691, 1691, 1691, 1691, 1691, 1691],
     [1691, 154, 154, 154, 3469, 3469, 3469, 1],
     [1690, 1691, 1692, 1693, 1694, 1691, 1691, 1691],
     [136, 3450, 1691, 1691, 1691, 1691, 1691, 1691],
     [1691, 155, 155, 155, 3470, 3470, 3470, 1],
     [1690, 1691, 1692, 1693, 1694, 1691, 1691, 1691],
     [1691, 136, 3450, 1691, 1691, 1691, 1691, 1],
     [1690, 1691, 1692, 1693, 1694, 1691, 1691, 1691],
     [147, 3461, 1691, 1691, 1691, 1691, 1691, 1691],
     [1691, 156, 156, 156, 3471, 3471, 3471, 1],
     [1690, 1691, 1692, 1691, 1693, 1694, 1691, 1691],
     [1691, 89, 3465, 1691, 1691, 1691, 1691, 1691],
     [1691, 1691, 157, 157, 157, 3472, 3472, 3472],
     [1, 1690, 1691, 1692, 1691, 1693, 1694, 1691],
     [1691, 1691, 89, 3465, 1691, 1691, 1691, 1691]]"

definition sup_indicies_26 :: "int list list" where
  "sup_indicies_26 =
    [[1691, 1691, 1691, 158, 158, 158, 3473, 3473],
     [3473, 1, 1690, 1691, 1692, 1691, 1693, 1694],
     [1691, 1691, 1691, 89, 3465, 1691, 1691, 1691],
     [1691, 1691, 1691, 1691, 147, 147, 147, 3461],
     [3461, 3461, 1, 1690, 1691, 1692, 1691, 1691],
     [1693, 1694, 1691, 1691, 1691, 1691, 134, 136],
     [3448, 3450, 1691, 1691, 1691, 1691, 1691, 1691],
     [159, 135, 135, 3474, 3449, 3449, 1, 1690],
     [1691, 1692, 1691, 1691, 1693, 1694, 1691, 1691],
     [1691, 1691, 134, 136, 3448, 3450, 1691, 1691],
     [1691, 1691, 1691, 1691, 160, 154, 154, 3475],
     [3469, 3469, 1, 1690, 1691, 1692, 1691, 1691],
     [1693, 1694, 1691, 1691, 1691, 1691, 134, 136],
     [3448, 3450, 1691, 1691, 1691, 1691, 1691, 1691],
     [155, 155, 155, 3470, 3470, 3470, 1, 1690],
     [1691, 1692, 1691, 1691, 1693, 1694, 1691, 1691],
     [1691, 1691, 134, 161, 136, 3448, 3476, 3450],
     [1691, 1691, 1691, 1691, 1691, 1691, 159, 162],
     [135, 135, 3474, 3477, 3449, 3449, 1, 1690],
     [1691, 1692, 1691, 1691, 1693, 1694, 1691, 1691],
     [1691, 1691, 134, 136, 3448, 3450, 1691, 1691],
     [1691, 1691, 1691, 1691, 160, 154, 154, 154],
     [3475, 3469, 3469, 3469, 1, 1690, 1691, 1692],
     [1691, 1691, 1693, 1694, 1691, 1691, 1691, 1691],
     [134, 136, 3448, 3450, 1691, 1691, 1691, 1691],
     [1691, 1691, 154, 154, 154, 3469, 3469, 3469],
     [1, 1690, 1691, 1692, 1691, 1691, 1693, 1694],
     [1691, 1691, 1691, 1691, 134, 136, 3448, 3450],
     [1691, 1691, 1691, 1691, 1691, 1691, 162, 135],
     [135, 3477, 3449, 3449, 1, 1690, 1691, 1692],
     [1691, 1693, 1694, 1691, 1691, 1691, 89, 3465],
     [1691, 1691, 1691, 1691, 1691, 1691, 1691, 156],
     [156, 156, 3471, 3471, 3471, 1, 1690, 1691],
     [1692, 1693, 1694, 1691, 1691, 1691, 136, 3450],
     [1691, 1691, 1691, 1691, 1691, 1691, 1691, 135],
     [135, 135, 3449, 3449, 3449, 1, 1690, 1691],
     [1692, 1691, 1693, 1694, 1691, 1691, 1691, 163],
     [164, 165, 89, 3478, 3479, 3480, 3465, 1691],
     [1691, 1691, 1691, 1691, 1691, 1691, 166, 167],
     [167, 3481, 3482, 3482, 1, 1690, 1691, 1692],
     [1691, 1691, 1693, 1694, 1691, 1691, 1691, 1691],
     [134, 169, 89, 3448, 3484, 3465, 1691, 1691],
     [1691, 1691, 1691, 1691, 168, 168, 168, 3483],
     [3483, 3483, 1, 1690, 1691, 1692, 1693, 1694],
     [1691, 1691, 1691, 169, 89, 3484, 3465, 1691],
     [1691, 1691, 1691, 1691, 1691, 1691, 170, 170],
     [170, 3485, 3485, 3485, 1, 1690, 1691, 1692],
     [1693, 1694, 1691, 1691, 1691, 169, 89, 3484],
     [3465, 1691, 1691, 1691, 1691, 1691, 1691, 1691],
     [171, 171, 171, 3486, 3486, 3486, 1, 1690],
     [1691, 1692, 1693, 1694, 1691, 1691, 1691, 1691],
     [169, 89, 3484, 3465, 1691, 1691, 1691, 1691],
     [1, 1690, 1691, 1692, 1691, 1693, 1694, 1691],
     [1691, 1691, 1691, 1691, 1691, 1691, 1691, 1691],
     [1691, 156, 156, 156, 3471, 3471, 3471, 1],
     [1690, 1691, 1692, 1691, 1691, 1693, 1694, 1691],
     [1691, 1691, 1691, 134, 169, 89, 3448, 3484],
     [3465, 1691, 1691, 1691, 1691, 1691, 1691, 172],
     [168, 168, 3487, 3483, 3483, 1, 1690, 1691],
     [1692, 1691, 1691, 1693, 1694, 1691, 1691, 1691],
     [1691, 134, 169, 89, 3448, 3484, 3465, 1691],
     [1691, 1691, 1691, 1691, 1691, 173, 170, 170],
     [3488, 3485, 3485, 1, 1690, 1691, 1692, 1691],
     [1691, 1693, 1694, 1691, 1691, 1691, 1691, 134],
     [169, 89, 3448, 3484, 3465, 1691, 1691, 1691],
     [1691, 1691, 1691, 171, 171, 171, 3486, 3486],
     [3486, 1, 1690, 1691, 1692, 1691, 1691, 1693],
     [1694, 1691, 1691, 1691, 1691, 134, 174, 169],
     [89, 3448, 3489, 3484, 3465, 1691, 1691, 1691],
     [1691, 1691, 1691, 172, 175, 168, 168, 3487],
     [3490, 3483, 3483, 1, 1690, 1691, 1692, 1691],
     [1691, 1693, 1694, 1691, 1691, 1691, 1691, 134],
     [169, 89, 3448, 3484, 3465, 1691, 1691, 1691],
     [1691, 1691, 1691, 173, 170, 170, 170, 3488],
     [3485, 3485, 3485, 1, 1690, 1691, 1692, 1691],
     [1691, 1693, 1694, 1691, 1691, 1691, 1691, 134],
     [169, 89, 3448, 3484, 3465, 1691, 1691, 1691],
     [1691, 1691, 1691, 170, 170, 170, 3485, 3485],
     [3485, 1, 1690, 1691, 1692, 1691, 1691, 1693],
     [1694, 1691, 1691, 1691, 1691, 134, 169, 89],
     [3448, 3484, 3465, 1691, 1691, 1691, 1691, 1691],
     [1691, 175, 168, 168, 3490, 3483, 3483, 1],
     [1690, 1691, 1692, 1693, 1694, 1691, 1691, 1691],
     [169, 89, 3484, 3465, 1691, 1691, 1691, 1691],
     [1691, 1691, 1691, 168, 168, 168, 3483, 3483],
     [3483, 1, 1690, 1691, 1692, 1691, 1693, 1694],
     [1691, 1691, 1691, 176, 177, 178, 89, 3491],
     [3492, 3493, 3465, 1691, 1691, 1691, 1691, 1691],
     [1691, 1691, 179, 180, 180, 3494, 3495, 3495],
     [1, 1690, 1691, 1692, 1691, 1691, 1693, 1694],
     [1691, 1691, 1691, 1691, 134, 182, 89, 3448],
     [3497, 3465, 1691, 1691, 1691, 1691, 1691, 1691],
     [181, 181, 181, 3496, 3496, 3496, 1, 1690],
     [1691, 1692, 1693, 1694, 1691, 1691, 1691, 182],
     [89, 3497, 3465, 1691, 1691, 1691, 1691, 1691],
     [1691, 1691, 183, 183, 183, 3498, 3498, 3498],
     [1, 1690, 1691, 1692, 1693, 1694, 1691, 1691],
     [1691, 182, 89, 3497, 3465, 1691, 1691, 1691],
     [1691, 1691, 1691, 1691, 184, 184, 184, 3499],
     [3499, 3499, 1, 1690, 1691, 1692, 1693, 1694],
     [1691, 1691, 1691, 1691, 182, 89, 3497, 3465],
     [1691, 1691, 1691, 1691, 1, 1690, 1691, 1692],
     [1691, 1693, 1694, 1691, 1691, 1691, 163, 164],
     [165, 3478, 3479, 3480, 1691, 1691, 1691, 1691],
     [1691, 1691, 1691, 166, 167, 167, 3481, 3482],
     [3482, 1, 1690, 1691, 1692, 1691, 1691, 1693],
     [1694, 1691, 1691, 1691, 1691, 134, 182, 89],
     [3448, 3497, 3465, 1691, 1691, 1691, 1691, 1691],
     [1691, 185, 181, 181, 3500, 3496, 3496, 1],
     [1690, 1691, 1692, 1691, 1691, 1693, 1694, 1691],
     [1691, 1691, 1691, 134, 182, 89, 3448, 3497],
     [3465, 1691, 1691, 1691, 1691, 1691, 1691, 186],
     [183, 183, 3501, 3498, 3498, 1, 1690, 1691],
     [1692, 1691, 1691, 1693, 1694, 1691, 1691, 1691],
     [1691, 134, 182, 89, 3448, 3497, 3465, 1691],
     [1691, 1691, 1691, 1691, 1691, 184, 184, 184],
     [3499, 3499, 3499, 1, 1690, 1691, 1692, 1691],
     [1691, 1693, 1694, 1691, 1691, 1691, 1691, 134],
     [187, 182, 89, 3448, 3502, 3497, 3465, 1691],
     [1691, 1691, 1691, 1691, 1691, 185, 188, 181],
     [181, 3500, 3503, 3496, 3496, 1, 1690, 1691],
     [1692, 1691, 1691, 1693, 1694, 1691, 1691, 1691],
     [1691, 134, 182, 89, 3448, 3497, 3465, 1691],
     [1691, 1691, 1691, 1691, 1691, 186, 183, 183],
     [183, 3501, 3498, 3498, 3498, 1, 1690, 1691],
     [1692, 1691, 1691, 1693, 1694, 1691, 1691, 1691],
     [1691, 134, 182, 89, 3448, 3497, 3465, 1691],
     [1691, 1691, 1691, 1691, 1691, 183, 183, 183],
     [3498, 3498, 3498, 1, 1690, 1691, 1692, 1691],
     [1691, 1693, 1694, 1691, 1691, 1691, 1691, 134],
     [182, 89, 3448, 3497, 3465, 1691, 1691, 1691],
     [1691, 1691, 1691, 188, 181, 181, 3503, 3496],
     [3496, 1, 1690, 1691, 1692, 1693, 1694, 1691],
     [1691, 1691, 182, 89, 3497, 3465, 1691, 1691],
     [1691, 1691, 1691, 1691, 1691, 181, 181, 181],
     [3496, 3496, 3496, 1, 1690, 1691, 1692, 1691],
     [1693, 1694, 1691, 1691, 1691, 189, 190, 191],
     [89, 3504, 3505, 3506, 3465, 1691, 1691, 1691],
     [1691, 1691, 1691, 1691, 192, 193, 193, 3507],
     [3508, 3508, 1, 1690, 1691, 1692, 1691, 1691],
     [1693, 1694, 1691, 1691, 1691, 1691, 134, 195],
     [89, 3448, 3510, 3465, 1691, 1691, 1691, 1691],
     [1691, 1691, 194, 194, 194, 3509, 3509, 3509],
     [1, 1690, 1691, 1692, 1693, 1694, 1691, 1691],
     [1691, 195, 89, 3510, 3465, 1691, 1691, 1691],
     [1691, 1691, 1691, 1691, 196, 196, 196, 3511],
     [3511, 3511, 1, 1690, 1691, 1692, 1693, 1694],
     [1691, 1691, 1691, 195, 89, 3510, 3465, 1691],
     [1691, 1691, 1691, 1691, 1691, 1691, 197, 197],
     [197, 3512, 3512, 3512, 1, 1690, 1691, 1692]]"

definition sup_indicies_27 :: "int list list" where
  "sup_indicies_27 =
    [[1693, 1694, 1691, 1691, 1691, 1691, 195, 89],
     [3510, 3465, 1691, 1691, 1691, 1691, 1, 1690],
     [1691, 1692, 1691, 1693, 1694, 1691, 1691, 1691],
     [176, 177, 178, 3491, 3492, 3493, 1691, 1691],
     [1691, 1691, 1691, 1691, 1691, 179, 180, 180],
     [3494, 3495, 3495, 1, 1690, 1691, 1692, 1691],
     [1691, 1693, 1694, 1691, 1691, 1691, 1691, 134],
     [195, 89, 3448, 3510, 3465, 1691, 1691, 1691],
     [1691, 1691, 1691, 198, 194, 194, 3513, 3509],
     [3509, 1, 1690, 1691, 1692, 1691, 1691, 1693],
     [1694, 1691, 1691, 1691, 1691, 134, 195, 89],
     [3448, 3510, 3465, 1691, 1691, 1691, 1691, 1691],
     [1691, 199, 196, 196, 3514, 3511, 3511, 1],
     [1690, 1691, 1692, 1691, 1691, 1693, 1694, 1691],
     [1691, 1691, 1691, 134, 195, 89, 3448, 3510],
     [3465, 1691, 1691, 1691, 1691, 1691, 1691, 197],
     [197, 197, 3512, 3512, 3512, 1, 1690, 1691],
     [1692, 1691, 1691, 1693, 1694, 1691, 1691, 1691],
     [1691, 134, 200, 195, 89, 3448, 3515, 3510],
     [3465, 1691, 1691, 1691, 1691, 1691, 1691, 198],
     [201, 194, 194, 3513, 3516, 3509, 3509, 1],
     [1690, 1691, 1692, 1691, 1691, 1693, 1694, 1691],
     [1691, 1691, 1691, 134, 195, 89, 3448, 3510],
     [3465, 1691, 1691, 1691, 1691, 1691, 1691, 199],
     [196, 196, 196, 3514, 3511, 3511, 3511, 1],
     [1690, 1691, 1692, 1691, 1691, 1693, 1694, 1691],
     [1691, 1691, 1691, 134, 195, 89, 3448, 3510],
     [3465, 1691, 1691, 1691, 1691, 1691, 1691, 196],
     [196, 196, 3511, 3511, 3511, 1, 1690, 1691],
     [1692, 1691, 1691, 1693, 1694, 1691, 1691, 1691],
     [1691, 134, 195, 89, 3448, 3510, 3465, 1691],
     [1691, 1691, 1691, 1691, 1691, 201, 194, 194],
     [3516, 3509, 3509, 1, 1690, 1691, 1692, 1693],
     [1694, 1691, 1691, 1691, 195, 89, 3510, 3465],
     [1691, 1691, 1691, 1691, 1691, 1691, 1691, 194],
     [194, 194, 3509, 3509, 3509, 1, 1690, 1691],
     [1692, 1691, 1693, 1694, 1691, 1691, 1691, 202],
     [203, 204, 89, 3517, 3518, 3519, 3465, 1691],
     [1691, 1691, 1691, 1691, 1691, 1691, 205, 206],
     [206, 3520, 3521, 3521, 1, 1690, 1691, 1692],
     [1691, 1691, 1693, 1694, 1691, 1691, 1691, 1691],
     [134, 208, 89, 3448, 3523, 3465, 1691, 1691],
     [1691, 1691, 1691, 1691, 207, 207, 207, 3522],
     [3522, 3522, 1, 1690, 1691, 1692, 1693, 1694],
     [1691, 1691, 1691, 208, 89, 3523, 3465, 1691],
     [1691, 1691, 1691, 1691, 1691, 1691, 209, 209],
     [209, 3524, 3524, 3524, 1, 1690, 1691, 1692],
     [1693, 1694, 1691, 1691, 1691, 208, 89, 3523],
     [3465, 1691, 1691, 1691, 1691, 1691, 1691, 1691],
     [210, 210, 210, 3525, 3525, 3525, 1, 1690],
     [1691, 1692, 1693, 1694, 1691, 1691, 1691, 1691],
     [208, 89, 3523, 3465, 1691, 1691, 1691, 1691],
     [1, 1690, 1691, 1692, 1691, 1693, 1694, 1691],
     [1691, 1691, 189, 190, 191, 3504, 3505, 3506],
     [1691, 1691, 1691, 1691, 1691, 1691, 1691, 192],
     [193, 193, 3507, 3508, 3508, 1, 1690, 1691],
     [1692, 1691, 1691, 1693, 1694, 1691, 1691, 1691],
     [1691, 134, 208, 89, 3448, 3523, 3465, 1691],
     [1691, 1691, 1691, 1691, 1691, 211, 207, 207],
     [3526, 3522, 3522, 1, 1690, 1691, 1692, 1691],
     [1691, 1693, 1694, 1691, 1691, 1691, 1691, 134],
     [208, 89, 3448, 3523, 3465, 1691, 1691, 1691],
     [1691, 1691, 1691, 212, 209, 209, 3527, 3524],
     [3524, 1, 1690, 1691, 1692, 1691, 1691, 1693],
     [1694, 1691, 1691, 1691, 1691, 134, 208, 89],
     [3448, 3523, 3465, 1691, 1691, 1691, 1691, 1691],
     [1691, 210, 210, 210, 3525, 3525, 3525, 1],
     [1690, 1691, 1692, 1691, 1691, 1693, 1694, 1691],
     [1691, 1691, 1691, 134, 213, 208, 89, 3448],
     [3528, 3523, 3465, 1691, 1691, 1691, 1691, 1691],
     [1691, 211, 214, 207, 207, 3526, 3529, 3522],
     [3522, 1, 1690, 1691, 1692, 1691, 1691, 1693],
     [1694, 1691, 1691, 1691, 1691, 134, 208, 89],
     [3448, 3523, 3465, 1691, 1691, 1691, 1691, 1691],
     [1691, 212, 209, 209, 209, 3527, 3524, 3524],
     [3524, 1, 1690, 1691, 1692, 1691, 1691, 1693],
     [1694, 1691, 1691, 1691, 1691, 134, 208, 89],
     [3448, 3523, 3465, 1691, 1691, 1691, 1691, 1691],
     [1691, 209, 209, 209, 3524, 3524, 3524, 1],
     [1690, 1691, 1692, 1691, 1691, 1693, 1694, 1691],
     [1691, 1691, 1691, 134, 208, 89, 3448, 3523],
     [3465, 1691, 1691, 1691, 1691, 1691, 1691, 214],
     [207, 207, 3529, 3522, 3522, 1, 1690, 1691],
     [1692, 1693, 1694, 1691, 1691, 1691, 208, 89],
     [3523, 3465, 1691, 1691, 1691, 1691, 1691, 1691],
     [1691, 207, 207, 207, 3522, 3522, 3522, 1],
     [1690, 1691, 1692, 1691, 1693, 1694, 1691, 1691],
     [1691, 215, 216, 217, 89, 3530, 3531, 3532],
     [3465, 1691, 1691, 1691, 1691, 1691, 1691, 1691],
     [218, 219, 219, 3533, 3534, 3534, 1, 1690],
     [1691, 1692, 1691, 1691, 1693, 1694, 1691, 1691],
     [1691, 1691, 134, 221, 89, 3448, 3536, 3465],
     [1691, 1691, 1691, 1691, 1691, 1691, 220, 220],
     [220, 3535, 3535, 3535, 1, 1690, 1691, 1692],
     [1693, 1694, 1691, 1691, 1691, 221, 89, 3536],
     [3465, 1691, 1691, 1691, 1691, 1691, 1691, 1691],
     [222, 222, 222, 3537, 3537, 3537, 1, 1690],
     [1691, 1692, 1693, 1694, 1691, 1691, 1691, 221],
     [89, 3536, 3465, 1691, 1691, 1691, 1691, 1691],
     [1691, 1691, 223, 223, 223, 3538, 3538, 3538],
     [1, 1690, 1691, 1692, 1693, 1694, 1691, 1691],
     [1691, 1691, 221, 89, 3536, 3465, 1691, 1691],
     [1691, 1691, 1, 1690, 1691, 1692, 1691, 1693],
     [1694, 1691, 1691, 1691, 202, 203, 204, 3517],
     [3518, 3519, 1691, 1691, 1691, 1691, 1691, 1691],
     [1691, 205, 206, 206, 3520, 3521, 3521, 1],
     [1690, 1691, 1692, 1691, 1691, 1693, 1694, 1691],
     [1691, 1691, 1691, 134, 221, 89, 3448, 3536],
     [3465, 1691, 1691, 1691, 1691, 1691, 1691, 224],
     [220, 220, 3539, 3535, 3535, 1, 1690, 1691],
     [1692, 1691, 1691, 1693, 1694, 1691, 1691, 1691],
     [1691, 134, 221, 89, 3448, 3536, 3465, 1691],
     [1691, 1691, 1691, 1691, 1691, 225, 222, 222],
     [3540, 3537, 3537, 1, 1690, 1691, 1692, 1691],
     [1691, 1693, 1694, 1691, 1691, 1691, 1691, 134],
     [221, 89, 3448, 3536, 3465, 1691, 1691, 1691],
     [1691, 1691, 1691, 223, 223, 223, 3538, 3538],
     [3538, 1, 1690, 1691, 1692, 1691, 1691, 1693],
     [1694, 1691, 1691, 1691, 1691, 134, 226, 221],
     [89, 3448, 3541, 3536, 3465, 1691, 1691, 1691],
     [1691, 1691, 1691, 224, 227, 220, 220, 3539],
     [3542, 3535, 3535, 1, 1690, 1691, 1692, 1691],
     [1691, 1693, 1694, 1691, 1691, 1691, 1691, 134],
     [221, 89, 3448, 3536, 3465, 1691, 1691, 1691],
     [1691, 1691, 1691, 225, 222, 222, 222, 3540],
     [3537, 3537, 3537, 1, 1690, 1691, 1692, 1691],
     [1691, 1693, 1694, 1691, 1691, 1691, 1691, 134],
     [221, 89, 3448, 3536, 3465, 1691, 1691, 1691],
     [1691, 1691, 1691, 222, 222, 222, 3537, 3537],
     [3537, 1, 1690, 1691, 1692, 1691, 1691, 1693],
     [1694, 1691, 1691, 1691, 1691, 134, 221, 89],
     [3448, 3536, 3465, 1691, 1691, 1691, 1691, 1691],
     [1691, 227, 220, 220, 3542, 3535, 3535, 1],
     [1690, 1691, 1692, 1693, 1694, 1691, 1691, 1691],
     [221, 89, 3536, 3465, 1691, 1691, 1691, 1691],
     [1691, 1691, 1691, 220, 220, 220, 3535, 3535],
     [3535, 1, 1690, 1691, 1692, 1693, 1694, 1691],
     [1691, 1691, 1691, 228, 3543, 1691, 1691, 1691],
     [1691, 1, 1690, 1691, 1692, 1691, 1693, 1694],
     [1691, 1691, 1691, 229, 230, 231, 89, 3544],
     [3545, 3546, 3465, 1691, 1691, 1691, 1691, 1691],
     [1691, 1691, 232, 233, 233, 3547, 3548, 3548],
     [1, 1690, 1691, 1692, 1691, 1691, 1693, 1694],
     [1691, 1691, 1691, 1691, 134, 235, 89, 3448],
     [3550, 3465, 1691, 1691, 1691, 1691, 1691, 1691],
     [234, 234, 234, 3549, 3549, 3549, 1, 1690],
     [1691, 1692, 1693, 1694, 1691, 1691, 1691, 235],
     [89, 3550, 3465, 1691, 1691, 1691, 1691, 1691],
     [1691, 1691, 236, 236, 236, 3551, 3551, 3551],
     [1, 1690, 1691, 1692, 1693, 1694, 1691, 1691]]"

definition sup_indicies_28 :: "int list list" where
  "sup_indicies_28 =
    [[1691, 235, 89, 3550, 3465, 1691, 1691, 1691],
     [1691, 1691, 1691, 1691, 237, 237, 237, 3552],
     [3552, 3552, 1, 1690, 1691, 1692, 1693, 1694],
     [1691, 1691, 1691, 1691, 235, 89, 3550, 3465],
     [1691, 1691, 1691, 1691, 1, 1690, 1691, 1692],
     [1691, 1693, 1694, 1691, 1691, 1691, 215, 216],
     [217, 3530, 3531, 3532, 1691, 1691, 1691, 1691],
     [1691, 1691, 1691, 218, 219, 219, 3533, 3534],
     [3534, 1, 1690, 1691, 1692, 1691, 1691, 1693],
     [1694, 1691, 1691, 1691, 1691, 134, 235, 89],
     [3448, 3550, 3465, 1691, 1691, 1691, 1691, 1691],
     [1691, 238, 234, 234, 3553, 3549, 3549, 1],
     [1690, 1691, 1692, 1691, 1691, 1693, 1694, 1691],
     [1691, 1691, 1691, 134, 235, 89, 3448, 3550],
     [3465, 1691, 1691, 1691, 1691, 1691, 1691, 239],
     [236, 236, 3554, 3551, 3551, 1, 1690, 1691],
     [1692, 1691, 1691, 1693, 1694, 1691, 1691, 1691],
     [1691, 134, 235, 89, 3448, 3550, 3465, 1691],
     [1691, 1691, 1691, 1691, 1691, 237, 237, 237],
     [3552, 3552, 3552, 1, 1690, 1691, 1692, 1691],
     [1691, 1693, 1694, 1691, 1691, 1691, 1691, 134],
     [240, 235, 89, 3448, 3555, 3550, 3465, 1691],
     [1691, 1691, 1691, 1691, 1691, 238, 241, 234],
     [234, 3553, 3556, 3549, 3549, 1, 1690, 1691],
     [1692, 1691, 1691, 1693, 1694, 1691, 1691, 1691],
     [1691, 134, 235, 89, 3448, 3550, 3465, 1691],
     [1691, 1691, 1691, 1691, 1691, 239, 236, 236],
     [236, 3554, 3551, 3551, 3551, 1, 1690, 1691],
     [1692, 1691, 1691, 1693, 1694, 1691, 1691, 1691],
     [1691, 134, 235, 89, 3448, 3550, 3465, 1691],
     [1691, 1691, 1691, 1691, 1691, 236, 236, 236],
     [3551, 3551, 3551, 1, 1690, 1691, 1692, 1691],
     [1691, 1693, 1694, 1691, 1691, 1691, 1691, 134],
     [235, 89, 3448, 3550, 3465, 1691, 1691, 1691],
     [1691, 1691, 1691, 241, 234, 234, 3556, 3549],
     [3549, 1, 1690, 1691, 1692, 1693, 1694, 1691],
     [1691, 1691, 235, 89, 3550, 3465, 1691, 1691],
     [1691, 1691, 1691, 1691, 1691, 234, 234, 234],
     [3549, 3549, 3549, 1, 1680, 1681, 1681, 1681],
     [1681, 1685, 1681, 1681, 71, 72, 71, 68],
     [1681, 1682, 1681, 1683, 1684, 1704, 1681, 1704],
     [1681, 68, 68, 68, 61, 73, 68, 68],
     [3394, 3395, 3394, 3396, 3397, 3557, 3394, 3557],
     [3394, 1681, 1681, 1681, 1681, 1681, 1681, 68],
     [68, 68, 68, 68, 3394, 3394, 3394, 3394],
     [3394, 1, 1705, 1681, 1681, 1681, 1681, 1708],
     [1681, 1681, 71, 72, 71, 68, 1681, 1682],
     [1681, 1706, 1707, 1681, 1681, 68, 68, 68],
     [61, 73, 68, 68, 3394, 3395, 3394, 3558],
     [3559, 3394, 3394, 1681, 1681, 1681, 1681, 1681],
     [1681, 68, 68, 68, 68, 68, 3394, 3394],
     [3394, 3394, 3394, 1, 1680, 1687, 1687, 1687],
     [1687, 1683, 1689, 1685, 1687, 73, 76, 73],
     [78, 1709, 1710, 1709, 1687, 1711, 1709, 77],
     [77, 77, 79, 77, 3560, 3561, 3560, 3401],
     [3562, 3560, 1687, 1709, 1709, 1709, 1709, 1709],
     [77, 77, 77, 77, 77, 3560, 3560, 3560],
     [3560, 3560, 1, 1690, 1691, 1691, 1691, 1691],
     [1694, 1691, 1691, 82, 64, 82, 1712, 1713],
     [1712, 1693, 1711, 1712, 77, 77, 77, 61],
     [77, 3563, 3564, 3563, 3404, 3562, 3563, 1691],
     [1712, 1712, 1712, 1712, 1712, 77, 77, 77],
     [77, 77, 3563, 3563, 3563, 3563, 3563, 1],
     [1206, 1716, 82, 64, 82, 1711, 1711, 1711],
     [1715, 1711, 77, 77, 77, 61, 77, 3562],
     [3562, 3562, 3566, 3562, 1711, 1711, 1714, 1714],
     [1711, 1711, 1714, 1711, 77, 77, 77, 77],
     [77, 3562, 3562, 3565, 3565, 3562, 3562, 3565],
     [3562, 1, 1206, 1716, 82, 64, 82, 1711],
     [1711, 1711, 1715, 1711, 77, 77, 77, 61],
     [77, 3562, 3562, 3562, 3566, 3562, 1711, 1711],
     [1711, 1711, 1711, 77, 77, 77, 77, 77],
     [3562, 3562, 3562, 3562, 3562, 1, 1206, 1716],
     [82, 64, 82, 1711, 1711, 1711, 1715, 1711],
     [77, 77, 77, 61, 77, 3562, 3562, 3562],
     [3566, 3562, 1711, 1711, 1712, 1712, 1711, 1711],
     [1712, 1711, 77, 77, 77, 77, 77, 3562],
     [3562, 3563, 3563, 3562, 3562, 3563, 3562, 1],
     [1680, 1681, 1681, 1681, 1681, 1685, 1681, 1681],
     [71, 72, 71, 68, 1681, 1682, 1681, 1683],
     [1684, 1717, 1718, 1681, 1717, 1718, 1681, 68],
     [68, 68, 61, 73, 68, 68, 3394, 3395],
     [3394, 3396, 3397, 3567, 3568, 3394, 3567, 3568],
     [3394, 1681, 1681, 1681, 1681, 1681, 1681, 68],
     [68, 68, 68, 68, 3394, 3394, 3394, 3394],
     [3394, 1, 1719, 1681, 1681, 1681, 1681, 1722],
     [1681, 1681, 71, 72, 71, 68, 1681, 1682],
     [1681, 1720, 1721, 1681, 1681, 68, 68, 68],
     [61, 73, 68, 68, 3394, 3395, 3394, 3569],
     [3570, 3394, 3394, 1681, 1681, 1681, 1681, 1681],
     [1681, 68, 68, 68, 68, 68, 3394, 3394],
     [3394, 3394, 3394, 1, 1680, 1681, 1681, 1681],
     [1681, 1685, 1681, 1681, 71, 72, 71, 68],
     [1681, 1682, 1681, 1683, 1684, 1723, 1681, 1723],
     [1681, 68, 68, 68, 61, 73, 68, 68],
     [3394, 3395, 3394, 3396, 3397, 3571, 3394, 3571],
     [3394, 1681, 1681, 1681, 1681, 1681, 1681, 68],
     [68, 68, 68, 68, 3394, 3394, 3394, 3394],
     [3394, 1, 1680, 1681, 1681, 1681, 1681, 1685],
     [1681, 1681, 71, 72, 71, 68, 1681, 1682],
     [1681, 1683, 1684, 1724, 1681, 1724, 1681, 68],
     [68, 68, 61, 73, 68, 68, 3394, 3395],
     [3394, 3396, 3397, 3572, 3394, 3572, 3394, 1681],
     [1681, 1681, 1681, 1681, 1681, 68, 68, 68],
     [68, 68, 3394, 3394, 3394, 3394, 3394, 1],
     [1680, 1681, 1681, 1681, 1681, 1685, 1681, 1681],
     [71, 72, 71, 68, 1681, 1682, 1681, 1683],
     [1725, 1681, 1681, 68, 68, 68, 61, 73],
     [68, 68, 3394, 3395, 3394, 3396, 3573, 3394],
     [3394, 1681, 1681, 1681, 1681, 1681, 1681, 68],
     [68, 68, 68, 68, 3394, 3394, 3394, 3394],
     [3394, 1, 1680, 1687, 1687, 1687, 1687, 1683],
     [1689, 1685, 1687, 73, 76, 73, 78, 1726],
     [1727, 1726, 1687, 1728, 1726, 77, 77, 77],
     [79, 77, 3574, 3575, 3574, 3401, 3576, 3574],
     [1687, 1726, 1726, 1726, 1726, 1726, 77, 77],
     [77, 77, 77, 3574, 3574, 3574, 3574, 3574],
     [1, 1729, 1691, 1691, 1691, 1691, 1733, 1691],
     [1691, 82, 64, 82, 1730, 1731, 1730, 1732],
     [1734, 1730, 77, 77, 77, 61, 77, 3577],
     [3578, 3577, 3579, 3580, 3577, 1691, 1730, 1730],
     [1730, 1730, 1730, 77, 77, 77, 77, 77],
     [3577, 3577, 3577, 3577, 3577, 1, 1735, 1738],
     [82, 64, 82, 1734, 1734, 1734, 1737, 1734],
     [77, 77, 77, 61, 77, 3580, 3580, 3580],
     [3582, 3580, 1734, 1734, 1736, 1736, 1734, 1734],
     [1736, 1734, 77, 77, 77, 77, 77, 3580],
     [3580, 3581, 3581, 3580, 3580, 3581, 3580, 1],
     [1735, 1738, 82, 64, 82, 1734, 1734, 1734],
     [1737, 1734, 77, 77, 77, 61, 77, 3580],
     [3580, 3580, 3582, 3580, 1734, 1734, 1734, 1734],
     [1734, 77, 77, 77, 77, 77, 3580, 3580],
     [3580, 3580, 3580, 1, 1735, 1738, 82, 64],
     [82, 1734, 1734, 1734, 1737, 1734, 77, 77],
     [77, 61, 77, 3580, 3580, 3580, 3582, 3580],
     [1734, 1734, 1730, 1730, 1734, 1734, 1730, 1734],
     [77, 77, 77, 77, 77, 3580, 3580, 3577],
     [3577, 3580, 3580, 3577, 3580, 1, 1680, 1681],
     [1681, 1681, 1681, 1685, 1681, 1681, 71, 72],
     [71, 68, 1681, 1682, 1681, 1683, 1684, 1739],
     [1681, 1739, 1681, 68, 68, 68, 61, 73],
     [68, 68, 3394, 3395, 3394, 3396, 3397, 3583],
     [3394, 3583, 3394, 1681, 1681, 1681, 1681, 1681],
     [1681, 68, 68, 68, 68, 68, 3394, 3394],
     [3394, 3394, 3394, 1, 1680, 1681, 1681, 1681],
     [1681, 1685, 1681, 1681, 71, 72, 71, 68],
     [1681, 1682, 1681, 1683, 1684, 1740, 1681, 1740],
     [1681, 68, 68, 68, 61, 73, 68, 68],
     [3394, 3395, 3394, 3396, 3397, 3584, 3394, 3584],
     [3394, 1681, 1681, 1681, 1681, 1681, 1681, 68]]"

definition sup_indicies_29 :: "int list list" where
  "sup_indicies_29 =
    [[68, 68, 68, 68, 3394, 3394, 3394, 3394],
     [3394, 1, 1680, 1681, 1681, 1681, 1681, 1685],
     [1681, 1681, 71, 72, 71, 68, 1681, 1682],
     [1681, 1683, 1684, 1741, 1681, 1741, 1681, 68],
     [68, 68, 61, 73, 68, 68, 3394, 3395],
     [3394, 3396, 3397, 3585, 3394, 3585, 3394, 1681],
     [1681, 1681, 1681, 1681, 1681, 68, 68, 68],
     [68, 68, 3394, 3394, 3394, 3394, 3394, 1],
     [1680, 1681, 1681, 1681, 1681, 1685, 1681, 1681],
     [71, 72, 71, 68, 1681, 1682, 1681, 1683],
     [1684, 1742, 1681, 1742, 1681, 68, 68, 68],
     [61, 73, 68, 68, 3394, 3395, 3394, 3396],
     [3397, 3586, 3394, 3586, 3394, 1681, 1681, 1681],
     [1681, 1681, 1681, 68, 68, 68, 68, 68],
     [3394, 3394, 3394, 3394, 3394, 1, 1680, 1681],
     [1681, 1681, 1681, 1685, 1681, 1681, 71, 72],
     [71, 68, 1681, 1682, 1681, 1683, 1684, 1743],
     [1681, 1743, 1681, 68, 68, 68, 61, 73],
     [68, 68, 3394, 3395, 3394, 3396, 3397, 3587],
     [3394, 3587, 3394, 1681, 1681, 1681, 1681, 1681],
     [1681, 68, 68, 68, 68, 68, 3394, 3394],
     [3394, 3394, 3394, 1, 1680, 1681, 1681, 1681],
     [1681, 1685, 1681, 1681, 71, 72, 71, 68],
     [1681, 1682, 1681, 1683, 1684, 1744, 1681, 1744],
     [1681, 68, 68, 68, 61, 73, 68, 68],
     [3394, 3395, 3394, 3396, 3397, 3588, 3394, 3588],
     [3394, 1681, 1681, 1681, 1681, 1681, 1681, 68],
     [68, 68, 68, 68, 3394, 3394, 3394, 3394],
     [3394, 1, 1680, 1681, 1681, 1681, 1681, 1685],
     [1681, 1681, 71, 72, 71, 68, 1681, 1682],
     [1681, 1683, 1684, 1745, 1681, 1745, 1681, 68],
     [68, 68, 61, 73, 68, 68, 3394, 3395],
     [3394, 3396, 3397, 3589, 3394, 3589, 3394, 1681],
     [1681, 1681, 1681, 1681, 1681, 68, 68, 68],
     [68, 68, 3394, 3394, 3394, 3394, 3394, 1],
     [1680, 1681, 1681, 1681, 1681, 1685, 1681, 1681],
     [71, 72, 71, 68, 1681, 1682, 1681, 1683],
     [1684, 1746, 1681, 1746, 1681, 68, 68, 68],
     [61, 73, 68, 68, 3394, 3395, 3394, 3396],
     [3397, 3590, 3394, 3590, 3394, 1681, 1681, 1681],
     [1681, 1681, 1681, 68, 68, 68, 68, 68],
     [3394, 3394, 3394, 3394, 3394, 1, 1680, 1681],
     [1681, 1681, 1681, 1685, 1681, 1681, 71, 72],
     [71, 68, 1681, 1682, 1681, 1683, 1747, 1681],
     [1681, 68, 68, 68, 61, 73, 68, 68],
     [3394, 3395, 3394, 3396, 3591, 3394, 3394, 1681],
     [1681, 1681, 1681, 1681, 1681, 68, 68, 68],
     [68, 68, 3394, 3394, 3394, 3394, 3394, 1],
     [1680, 1687, 1687, 1687, 1687, 1683, 1689, 1685],
     [1687, 73, 76, 73, 78, 1748, 1749, 1748],
     [1750, 1751, 1752, 1753, 1687, 1754, 1750, 1751],
     [1752, 1753, 1748, 77, 77, 77, 79, 77],
     [3592, 3593, 3592, 3594, 3595, 3596, 3597, 3401],
     [3598, 3594, 3595, 3596, 3597, 3592, 1687, 1748],
     [1748, 1748, 1748, 1748, 77, 77, 77, 77],
     [77, 3592, 3592, 3592, 3592, 3592, 1, 1755],
     [1691, 1691, 1691, 1691, 1759, 1691, 1691, 82],
     [64, 82, 1756, 1757, 1756, 1758, 1760, 1756],
     [77, 77, 77, 61, 77, 3599, 3600, 3599],
     [3601, 3602, 3599, 1691, 1756, 1756, 1756, 1756],
     [1756, 77, 77, 77, 77, 77, 3599, 3599],
     [3599, 3599, 3599, 1, 1761, 1764, 82, 64],
     [82, 1760, 1760, 1760, 1763, 1760, 77, 77],
     [77, 61, 77, 3602, 3602, 3602, 3604, 3602],
     [1760, 1760, 1762, 1762, 1760, 1760, 1762, 1760],
     [77, 77, 77, 77, 77, 3602, 3602, 3603],
     [3603, 3602, 3602, 3603, 3602, 1, 1761, 1764],
     [82, 64, 82, 1760, 1760, 1760, 1763, 1760],
     [77, 77, 77, 61, 77, 3602, 3602, 3602],
     [3604, 3602, 1760, 1760, 1760, 1760, 1760, 77],
     [77, 77, 77, 77, 3602, 3602, 3602, 3602],
     [3602, 1, 1761, 1764, 82, 64, 82, 1760],
     [1760, 1760, 1763, 1760, 77, 77, 77, 61],
     [77, 3602, 3602, 3602, 3604, 3602, 1760, 1760],
     [1756, 1756, 1760, 1760, 1756, 1760, 77, 77],
     [77, 77, 77, 3602, 3602, 3599, 3599, 3602],
     [3602, 3599, 3602, 1, 1755, 1691, 1691, 1691],
     [1691, 1759, 1691, 1691, 82, 64, 82, 1756],
     [1757, 1756, 1758, 1765, 1760, 1765, 1756, 77],
     [77, 77, 61, 77, 3599, 3600, 3599, 3601],
     [3605, 3602, 3605, 3599, 1691, 1756, 1756, 1756],
     [1756, 1756, 77, 77, 77, 77, 77, 3599],
     [3599, 3599, 3599, 3599, 1, 1755, 1691, 1691],
     [1691, 1691, 1759, 1691, 1691, 82, 64, 82],
     [1756, 1757, 1756, 1758, 1766, 1760, 1766, 1756],
     [77, 77, 77, 61, 77, 3599, 3600, 3599],
     [3601, 3606, 3602, 3606, 3599, 1691, 1756, 1756],
     [1756, 1756, 1756, 77, 77, 77, 77, 77],
     [3599, 3599, 3599, 3599, 3599, 1, 1755, 1691],
     [1691, 1691, 1691, 1759, 1691, 1691, 82, 64],
     [82, 1756, 1757, 1756, 1758, 1767, 1760, 1767],
     [1756, 77, 77, 77, 61, 77, 3599, 3600],
     [3599, 3601, 3607, 3602, 3607, 3599, 1691, 1756],
     [1756, 1756, 1756, 1756, 77, 77, 77, 77],
     [77, 3599, 3599, 3599, 3599, 3599, 1, 1768],
     [1691, 1691, 1691, 1691, 1770, 1691, 1691, 82],
     [64, 82, 1756, 1757, 1756, 1769, 1760, 1756],
     [77, 77, 77, 61, 77, 3599, 3600, 3599],
     [3608, 3602, 3599, 1691, 1756, 1756, 1756, 1756],
     [1756, 77, 77, 77, 77, 77, 3599, 3599],
     [3599, 3599, 3599, 1, 1755, 1691, 1691, 1691],
     [1691, 1759, 1691, 1691, 82, 64, 82, 1756],
     [1757, 1756, 1758, 1771, 1772, 1760, 1771, 1772],
     [1756, 77, 77, 77, 61, 77, 3599, 3600],
     [3599, 3601, 3609, 3610, 3602, 3609, 3610, 3599],
     [1691, 1756, 1756, 1756, 1756, 1756, 77, 77],
     [77, 77, 77, 3599, 3599, 3599, 3599, 3599],
     [1, 1755, 1691, 1691, 1691, 1691, 1759, 1691],
     [1691, 82, 64, 82, 1756, 1757, 1756, 1758],
     [1773, 1760, 1773, 1756, 77, 77, 77, 61],
     [77, 3599, 3600, 3599, 3601, 3611, 3602, 3611],
     [3599, 1691, 1756, 1756, 1756, 1756, 1756, 77],
     [77, 77, 77, 77, 3599, 3599, 3599, 3599],
     [3599, 1, 1774, 1691, 1691, 1691, 1691, 1776],
     [1691, 1691, 82, 64, 82, 1756, 1757, 1756],
     [1775, 1760, 1756, 77, 77, 77, 61, 77],
     [3599, 3600, 3599, 3612, 3602, 3599, 1691, 1756],
     [1756, 1756, 1756, 1756, 77, 77, 77, 77],
     [77, 3599, 3599, 3599, 3599, 3599, 1, 1755],
     [1691, 1691, 1691, 1691, 1759, 1691, 1691, 82],
     [64, 82, 1756, 1757, 1756, 1758, 1777, 1760],
     [1777, 1756, 77, 77, 77, 61, 77, 3599],
     [3600, 3599, 3601, 3613, 3602, 3613, 3599, 1691],
     [1756, 1756, 1756, 1756, 1756, 77, 77, 77],
     [77, 77, 3599, 3599, 3599, 3599, 3599, 1],
     [1778, 1691, 1691, 1691, 1691, 1780, 1691, 1691],
     [82, 64, 82, 1756, 1757, 1756, 1779, 1760],
     [1756, 77, 77, 77, 61, 77, 3599, 3600],
     [3599, 3614, 3602, 3599, 1691, 1756, 1756, 1756],
     [1756, 1756, 77, 77, 77, 77, 77, 3599],
     [3599, 3599, 3599, 3599, 1, 1755, 1691, 1691],
     [1691, 1691, 1759, 1691, 1691, 82, 64, 82],
     [1756, 1757, 1756, 1758, 1781, 1760, 1781, 1756],
     [77, 77, 77, 61, 77, 3599, 3600, 3599],
     [3601, 3615, 3602, 3615, 3599, 1691, 1756, 1756],
     [1756, 1756, 1756, 77, 77, 77, 77, 77],
     [3599, 3599, 3599, 3599, 3599, 1, 1755, 1691],
     [1691, 1691, 1691, 1759, 1691, 1691, 82, 64],
     [82, 1756, 1757, 1756, 1758, 1782, 1760, 1782],
     [1756, 77, 77, 77, 61, 77, 3599, 3600],
     [3599, 3601, 3616, 3602, 3616, 3599, 1691, 1756],
     [1756, 1756, 1756, 1756, 77, 77, 77, 77],
     [77, 3599, 3599, 3599, 3599, 3599, 1, 1783],
     [1691, 1691, 1691, 1691, 1785, 1691, 1691, 82],
     [64, 82, 1756, 1757, 1756, 1784, 1760, 1756],
     [77, 77, 77, 61, 77, 3599, 3600, 3599],
     [3617, 3602, 3599, 1691, 1756, 1756, 1756, 1756],
     [1756, 77, 77, 77, 77, 77, 3599, 3599],
     [3599, 3599, 3599, 1, 1755, 1691, 1691, 1691],
     [1691, 1759, 1691, 1691, 82, 64, 82, 1756]]"

definition sup_indicies_30 :: "int list list" where
  "sup_indicies_30 =
    [[1757, 1756, 1758, 1786, 1760, 1786, 1756, 77],
     [77, 77, 61, 77, 3599, 3600, 3599, 3601],
     [3618, 3602, 3618, 3599, 1691, 1756, 1756, 1756],
     [1756, 1756, 77, 77, 77, 77, 77, 3599],
     [3599, 3599, 3599, 3599, 1, 1787, 1691, 1691],
     [1691, 1691, 1789, 1691, 1691, 82, 64, 82],
     [1756, 1757, 1756, 1788, 1790, 1760, 1790, 1756],
     [77, 77, 77, 61, 77, 3599, 3600, 3599],
     [3619, 3620, 3602, 3620, 3599, 1691, 1756, 1756],
     [1756, 1756, 1756, 77, 77, 77, 77, 77],
     [3599, 3599, 3599, 3599, 3599, 1, 1791, 1691],
     [1691, 1691, 1691, 1793, 1691, 1691, 82, 64],
     [82, 1756, 1757, 1756, 1792, 1760, 1756, 77],
     [77, 77, 61, 77, 3599, 3600, 3599, 3621],
     [3602, 3599, 1691, 1756, 1756, 1756, 1756, 1756],
     [77, 77, 77, 77, 77, 3599, 3599, 3599],
     [3599, 3599, 1, 1672, 1674, 2654, 2655, 2654],
     [1673, 2656, 3388, 1671, 2653, 3387, 1, 1672],
     [1674, 2654, 2655, 2654, 1673, 2656, 3388, 1670],
     [2652, 3386, 1, 1672, 1674, 2654, 2655, 2654],
     [1673, 2656, 3388, 1794, 2657, 3622, 1, 1672],
     [1674, 2654, 2655, 2654, 1673, 2656, 3388, 1668],
     [2650, 3384, 1, 1672, 1674, 2654, 2655, 2654],
     [1795, 1673, 2658, 2656, 3623, 3388, 1794, 1668],
     [2657, 2650, 3622, 3384, 1, 1672, 1674, 2654],
     [2655, 2654, 1796, 1673, 2659, 2656, 3624, 3388],
     [1668, 1670, 2650, 2652, 3384, 3386, 1, 1672],
     [1674, 2654, 2655, 2654, 1797, 1673, 2660, 2656],
     [3625, 3388, 1670, 1671, 2652, 2653, 3386, 3387],
     [1, 1672, 1674, 2654, 2655, 2654, 1673, 2656],
     [3388, 1671, 2653, 3387, 1, 1798, 1799, 1800],
     [2661, 2662, 2663, 3626, 3627, 3628, 1801, 1656],
     [1656, 2664, 2638, 2638, 3629, 3374, 3374, 1],
     [1652, 1802, 1652, 2634, 2665, 2634, 3370, 3630],
     [3370, 1654, 1654, 1654, 2636, 2636, 2636, 3372],
     [3372, 3372, 1, 1803, 1804, 1805, 2666, 2667],
     [2668, 3631, 3632, 3633, 1806, 1656, 1656, 2669],
     [2638, 2638, 3634, 3374, 3374, 1, 1652, 1807],
     [1652, 2634, 2670, 2634, 3370, 3635, 3370, 1654],
     [1654, 1654, 2636, 2636, 2636, 3372, 3372, 3372],
     [1, 1808, 1809, 1810, 2671, 2672, 2673, 3636],
     [3637, 3638, 1811, 1656, 1656, 2674, 2638, 2638],
     [3639, 3374, 3374, 1, 1812, 1815, 2675, 2676],
     [2675, 1652, 1655, 1813, 1814, 1652, 2634, 2637],
     [2677, 2678, 2634, 3370, 3373, 3640, 3641, 3370],
     [1654, 1654, 1654, 2636, 2636, 2636, 3372, 3372],
     [3372, 1, 1812, 1815, 2675, 2676, 2675, 1652],
     [1655, 1813, 1814, 1652, 2634, 2637, 2677, 2678],
     [2634, 3370, 3373, 3640, 3641, 3370, 1811, 1654],
     [1654, 2674, 2636, 2636, 3639, 3372, 3372, 1],
     [1812, 1815, 2675, 2676, 2675, 1652, 1655, 1813],
     [1814, 1652, 2634, 2637, 2677, 2678, 2634, 3370],
     [3373, 3640, 3641, 3370, 1808, 1654, 1654, 2671],
     [2636, 2636, 3636, 3372, 3372, 1, 1812, 1815],
     [2675, 2676, 2675, 1652, 1655, 1816, 1813, 1814],
     [1652, 2634, 2637, 2679, 2677, 2678, 2634, 3370],
     [3373, 3642, 3640, 3641, 3370, 1811, 1808, 1654],
     [1654, 2674, 2671, 2636, 2636, 3639, 3636, 3372],
     [3372, 1, 1812, 1815, 2675, 2676, 2675, 1652],
     [1655, 1813, 1814, 1652, 2634, 2637, 2677, 2678],
     [2634, 3370, 3373, 3640, 3641, 3370, 1808, 1654],
     [1654, 1654, 2671, 2636, 2636, 2636, 3636, 3372],
     [3372, 3372, 1, 1652, 1807, 1652, 2634, 2670],
     [2634, 3370, 3635, 3370, 1806, 1654, 1654, 2669],
     [2636, 2636, 3634, 3372, 3372, 1, 1652, 1807],
     [1652, 2634, 2670, 2634, 3370, 3635, 3370, 1803],
     [1654, 1654, 2666, 2636, 2636, 3631, 3372, 3372],
     [1, 1652, 1807, 1817, 1652, 2634, 2670, 2680],
     [2634, 3370, 3635, 3643, 3370, 1806, 1803, 1654],
     [1654, 2669, 2666, 2636, 2636, 3634, 3631, 3372],
     [3372, 1, 1652, 1807, 1652, 2634, 2670, 2634],
     [3370, 3635, 3370, 1803, 1654, 1654, 1654, 2666],
     [2636, 2636, 2636, 3631, 3372, 3372, 3372, 1],
     [1652, 1802, 1652, 2634, 2665, 2634, 3370, 3630],
     [3370, 1801, 1654, 1654, 2664, 2636, 2636, 3629],
     [3372, 3372, 1, 1652, 1802, 1652, 2634, 2665],
     [2634, 3370, 3630, 3370, 1798, 1654, 1654, 2661],
     [2636, 2636, 3626, 3372, 3372, 1, 1652, 1802],
     [1818, 1652, 2634, 2665, 2681, 2634, 3370, 3630],
     [3644, 3370, 1801, 1798, 1654, 1654, 2664, 2661],
     [2636, 2636, 3629, 3626, 3372, 3372, 1, 1652],
     [1802, 1652, 2634, 2665, 2634, 3370, 3630, 3370],
     [1798, 1654, 1654, 1654, 2661, 2636, 2636, 2636],
     [3626, 3372, 3372, 3372, 1, 1652, 1653, 1652],
     [2634, 2635, 2634, 3370, 3371, 3370, 1819, 1654],
     [1654, 2682, 2636, 2636, 3645, 3372, 3372, 1],
     [1652, 1653, 1652, 2634, 2635, 2634, 3370, 3371],
     [3370, 1820, 1654, 1654, 2683, 2636, 2636, 3646],
     [3372, 3372, 1, 1652, 1653, 1821, 1652, 2634],
     [2635, 2684, 2634, 3370, 3371, 3647, 3370, 1819],
     [1820, 1654, 1654, 2682, 2683, 2636, 2636, 3645],
     [3646, 3372, 3372, 1, 1652, 1653, 1652, 2634],
     [2635, 2634, 3370, 3371, 3370, 1820, 1654, 1654],
     [1654, 2683, 2636, 2636, 2636, 3646, 3372, 3372],
     [3372, 1, 1823, 2686, 3649, 1822, 1822, 1822],
     [2685, 2685, 2685, 3648, 3648, 3648, 1, 1825],
     [2688, 3651, 1824, 1824, 1824, 2687, 2687, 2687],
     [3650, 3650, 3650, 1, 1825, 2688, 3651, 1826],
     [1826, 1826, 2689, 2689, 2689, 3652, 3652, 3652],
     [1, 1825, 2688, 3651, 1827, 1827, 1827, 2690],
     [2690, 2690, 3653, 3653, 3653, 1, 1825, 2688],
     [3651, 1, 1829, 2692, 3655, 1828, 1828, 1828],
     [2691, 2691, 2691, 3654, 3654, 3654, 1, 1831],
     [2694, 3657, 1830, 1830, 1830, 2693, 2693, 2693],
     [3656, 3656, 3656, 1, 1831, 2694, 3657, 1832],
     [1832, 1832, 2695, 2695, 2695, 3658, 3658, 3658],
     [1, 1831, 2694, 3657, 1833, 1833, 1833, 2696],
     [2696, 2696, 3659, 3659, 3659, 1, 1831, 2694],
     [3657, 1, 1835, 2698, 3661, 1834, 1834, 1834],
     [2697, 2697, 2697, 3660, 3660, 3660, 1, 1837],
     [2700, 3663, 1836, 1836, 1836, 2699, 2699, 2699],
     [3662, 3662, 3662, 1, 1837, 2700, 3663, 1838],
     [1838, 1838, 2701, 2701, 2701, 3664, 3664, 3664],
     [1, 1837, 2700, 3663, 1839, 1839, 1839, 2702],
     [2702, 2702, 3665, 3665, 3665, 1, 1837, 2700],
     [3663, 1, 1841, 2704, 3667, 1840, 1840, 1840],
     [2703, 2703, 2703, 3666, 3666, 3666, 1, 1843],
     [2706, 3669, 1842, 1842, 1842, 2705, 2705, 2705],
     [3668, 3668, 3668, 1, 1843, 2706, 3669, 1844],
     [1844, 1844, 2707, 2707, 2707, 3670, 3670, 3670],
     [1, 1843, 2706, 3669, 1845, 1845, 1845, 2708],
     [2708, 2708, 3671, 3671, 3671, 1, 1843, 2706],
     [3669, 1, 1847, 2710, 3673, 1846, 1846, 1846],
     [2709, 2709, 2709, 3672, 3672, 3672, 1, 1849],
     [2712, 3675, 1848, 1848, 1848, 2711, 2711, 2711],
     [3674, 3674, 3674, 1, 1849, 2712, 3675, 1850],
     [1850, 1850, 2713, 2713, 2713, 3676, 3676, 3676],
     [1, 1849, 2712, 3675, 1851, 1851, 1851, 2714],
     [2714, 2714, 3677, 3677, 3677, 1, 1849, 2712],
     [3675, 1, 1853, 2716, 3679, 1852, 1852, 1852],
     [2715, 2715, 2715, 3678, 3678, 3678, 1, 1855],
     [2718, 3681, 1854, 1854, 1854, 2717, 2717, 2717],
     [3680, 3680, 3680, 1, 1855, 2718, 3681, 1856],
     [1856, 1856, 2719, 2719, 2719, 3682, 3682, 3682],
     [1, 1855, 2718, 3681, 1857, 1857, 1857, 2720],
     [2720, 2720, 3683, 3683, 3683, 1, 1855, 2718],
     [3681, 1, 1858, 1859, 1860, 1862, 2721, 2722],
     [2723, 2725, 3684, 3685, 3686, 3688, 1861, 1863],
     [1863, 2724, 2726, 2726, 3687, 3689, 3689, 1],
     [1864, 1866, 2727, 2729, 3690, 3692, 1865, 1865],
     [1865, 2728, 2728, 2728, 3691, 3691, 3691, 1],
     [1867, 1868, 1869, 2730, 2731, 2732, 3693, 3694],
     [3695, 1870, 2733, 3696, 1, 1871, 2734, 3697],
     [1, 1872, 1873, 1874, 2735, 2736, 2737, 3698],
     [3699, 3700, 1875, 2738, 3701, 1, 1876, 2739],
     [3702, 1, 1877, 1878, 1879, 2740, 2741, 2742],
     [3703, 3704, 3705, 1880, 2743, 3706, 1, 1881],
     [2744, 3707, 1, 1882, 1885, 2745, 2746, 2745],
     [1883, 1884, 2747, 2748, 3708, 3709, 1, 1881],
     [2744, 3707, 1880, 2743, 3706, 1, 1881, 2744]]"

definition sup_indicies_31 :: "int list list" where
  "sup_indicies_31 =
    [[3707, 1877, 2740, 3703, 1, 1886, 1881, 2749],
     [2744, 3710, 3707, 1880, 1877, 2743, 2740, 3706],
     [3703, 1, 1881, 2744, 3707, 1877, 2740, 3703],
     [1, 1876, 2739, 3702, 1875, 2738, 3701, 1],
     [1876, 2739, 3702, 1872, 2735, 3698, 1, 1876],
     [1887, 2739, 2750, 3702, 3711, 1875, 1872, 2738],
     [2735, 3701, 3698, 1, 1876, 2739, 3702, 1872],
     [2735, 3698, 1, 1871, 2734, 3697, 1870, 2733],
     [3696, 1, 1871, 2734, 3697, 1867, 2730, 3693],
     [1, 1871, 1888, 2734, 2751, 3697, 3712, 1870],
     [1867, 2733, 2730, 3696, 3693, 1, 1871, 2734],
     [3697, 1867, 2730, 3693, 1, 1866, 2729, 3692],
     [1889, 1889, 1889, 2752, 2752, 2752, 3713, 3713],
     [3713, 1, 1866, 2729, 3692, 1890, 1890, 1890],
     [2753, 2753, 2753, 3714, 3714, 3714, 1, 1866],
     [2729, 3692, 1, 1877, 2740, 3703, 1891, 1891],
     [1891, 2754, 2754, 2754, 3715, 3715, 3715, 1],
     [1881, 2744, 3707, 1892, 1892, 1892, 2755, 2755],
     [2755, 3716, 3716, 3716, 1, 1881, 2744, 3707],
     [1893, 1893, 1893, 2756, 2756, 2756, 3717, 3717],
     [3717, 1, 1881, 2744, 3707, 1877, 1877, 1877],
     [2740, 2740, 2740, 3703, 3703, 3703, 1, 1864],
     [1866, 2727, 2729, 3690, 3692, 1894, 1865, 1865],
     [2757, 2728, 2728, 3718, 3691, 3691, 1, 1864],
     [1866, 2727, 2729, 3690, 3692, 1895, 1889, 1889],
     [2758, 2752, 2752, 3719, 3713, 3713, 1, 1864],
     [1866, 2727, 2729, 3690, 3692, 1890, 1890, 1890],
     [2753, 2753, 2753, 3714, 3714, 3714, 1, 1864],
     [1896, 1866, 2727, 2759, 2729, 3690, 3720, 3692],
     [1894, 1897, 1865, 1865, 2757, 2760, 2728, 2728],
     [3718, 3721, 3691, 3691, 1, 1864, 1866, 2727],
     [2729, 3690, 3692, 1895, 1889, 1889, 1889, 2758],
     [2752, 2752, 2752, 3719, 3713, 3713, 3713, 1],
     [1864, 1866, 2727, 2729, 3690, 3692, 1889, 1889],
     [1889, 2752, 2752, 2752, 3713, 3713, 3713, 1],
     [1864, 1866, 2727, 2729, 3690, 3692, 1897, 1865],
     [1865, 2760, 2728, 2728, 3721, 3691, 3691, 1],
     [1881, 2744, 3707, 1891, 1891, 1891, 2754, 2754],
     [2754, 3715, 3715, 3715, 1, 1866, 2729, 3692],
     [1865, 1865, 1865, 2728, 2728, 2728, 3691, 3691],
     [3691, 1, 1898, 1899, 1900, 1881, 2761, 2762],
     [2763, 2744, 3722, 3723, 3724, 3707, 1901, 1902],
     [1902, 2764, 2765, 2765, 3725, 3726, 3726, 1],
     [1864, 1904, 1881, 2727, 2767, 2744, 3690, 3728],
     [3707, 1903, 1903, 1903, 2766, 2766, 2766, 3727],
     [3727, 3727, 1, 1904, 1881, 2767, 2744, 3728],
     [3707, 1905, 1905, 1905, 2768, 2768, 2768, 3729],
     [3729, 3729, 1, 1904, 1881, 2767, 2744, 3728],
     [3707, 1906, 1906, 1906, 2769, 2769, 2769, 3730],
     [3730, 3730, 1, 1904, 1881, 2767, 2744, 3728],
     [3707, 1, 1891, 1891, 1891, 2754, 2754, 2754],
     [3715, 3715, 3715, 1, 1864, 1904, 1881, 2727],
     [2767, 2744, 3690, 3728, 3707, 1907, 1903, 1903],
     [2770, 2766, 2766, 3731, 3727, 3727, 1, 1864],
     [1904, 1881, 2727, 2767, 2744, 3690, 3728, 3707],
     [1908, 1905, 1905, 2771, 2768, 2768, 3732, 3729],
     [3729, 1, 1864, 1904, 1881, 2727, 2767, 2744],
     [3690, 3728, 3707, 1906, 1906, 1906, 2769, 2769],
     [2769, 3730, 3730, 3730, 1, 1864, 1909, 1904],
     [1881, 2727, 2772, 2767, 2744, 3690, 3733, 3728],
     [3707, 1907, 1910, 1903, 1903, 2770, 2773, 2766],
     [2766, 3731, 3734, 3727, 3727, 1, 1864, 1904],
     [1881, 2727, 2767, 2744, 3690, 3728, 3707, 1908],
     [1905, 1905, 1905, 2771, 2768, 2768, 2768, 3732],
     [3729, 3729, 3729, 1, 1864, 1904, 1881, 2727],
     [2767, 2744, 3690, 3728, 3707, 1905, 1905, 1905],
     [2768, 2768, 2768, 3729, 3729, 3729, 1, 1864],
     [1904, 1881, 2727, 2767, 2744, 3690, 3728, 3707],
     [1910, 1903, 1903, 2773, 2766, 2766, 3734, 3727],
     [3727, 1, 1904, 1881, 2767, 2744, 3728, 3707],
     [1903, 1903, 1903, 2766, 2766, 2766, 3727, 3727],
     [3727, 1, 1911, 1912, 1913, 1881, 2774, 2775],
     [2776, 2744, 3735, 3736, 3737, 3707, 1914, 1915],
     [1915, 2777, 2778, 2778, 3738, 3739, 3739, 1],
     [1864, 1917, 1881, 2727, 2780, 2744, 3690, 3741],
     [3707, 1916, 1916, 1916, 2779, 2779, 2779, 3740],
     [3740, 3740, 1, 1917, 1881, 2780, 2744, 3741],
     [3707, 1918, 1918, 1918, 2781, 2781, 2781, 3742],
     [3742, 3742, 1, 1917, 1881, 2780, 2744, 3741],
     [3707, 1919, 1919, 1919, 2782, 2782, 2782, 3743],
     [3743, 3743, 1, 1917, 1881, 2780, 2744, 3741],
     [3707, 1, 1898, 1899, 1900, 2761, 2762, 2763],
     [3722, 3723, 3724, 1901, 1902, 1902, 2764, 2765],
     [2765, 3725, 3726, 3726, 1, 1864, 1917, 1881],
     [2727, 2780, 2744, 3690, 3741, 3707, 1920, 1916],
     [1916, 2783, 2779, 2779, 3744, 3740, 3740, 1],
     [1864, 1917, 1881, 2727, 2780, 2744, 3690, 3741],
     [3707, 1921, 1918, 1918, 2784, 2781, 2781, 3745],
     [3742, 3742, 1, 1864, 1917, 1881, 2727, 2780],
     [2744, 3690, 3741, 3707, 1919, 1919, 1919, 2782],
     [2782, 2782, 3743, 3743, 3743, 1, 1864, 1922],
     [1917, 1881, 2727, 2785, 2780, 2744, 3690, 3746],
     [3741, 3707, 1920, 1923, 1916, 1916, 2783, 2786],
     [2779, 2779, 3744, 3747, 3740, 3740, 1, 1864],
     [1917, 1881, 2727, 2780, 2744, 3690, 3741, 3707],
     [1921, 1918, 1918, 1918, 2784, 2781, 2781, 2781],
     [3745, 3742, 3742, 3742, 1, 1864, 1917, 1881],
     [2727, 2780, 2744, 3690, 3741, 3707, 1918, 1918],
     [1918, 2781, 2781, 2781, 3742, 3742, 3742, 1],
     [1864, 1917, 1881, 2727, 2780, 2744, 3690, 3741],
     [3707, 1923, 1916, 1916, 2786, 2779, 2779, 3747],
     [3740, 3740, 1, 1917, 1881, 2780, 2744, 3741],
     [3707, 1916, 1916, 1916, 2779, 2779, 2779, 3740],
     [3740, 3740, 1, 1924, 1925, 1926, 1881, 2787],
     [2788, 2789, 2744, 3748, 3749, 3750, 3707, 1927],
     [1928, 1928, 2790, 2791, 2791, 3751, 3752, 3752],
     [1, 1864, 1930, 1881, 2727, 2793, 2744, 3690],
     [3754, 3707, 1929, 1929, 1929, 2792, 2792, 2792],
     [3753, 3753, 3753, 1, 1930, 1881, 2793, 2744],
     [3754, 3707, 1931, 1931, 1931, 2794, 2794, 2794],
     [3755, 3755, 3755, 1, 1930, 1881, 2793, 2744],
     [3754, 3707, 1932, 1932, 1932, 2795, 2795, 2795],
     [3756, 3756, 3756, 1, 1930, 1881, 2793, 2744],
     [3754, 3707, 1, 1911, 1912, 1913, 2774, 2775],
     [2776, 3735, 3736, 3737, 1914, 1915, 1915, 2777],
     [2778, 2778, 3738, 3739, 3739, 1, 1864, 1930],
     [1881, 2727, 2793, 2744, 3690, 3754, 3707, 1933],
     [1929, 1929, 2796, 2792, 2792, 3757, 3753, 3753],
     [1, 1864, 1930, 1881, 2727, 2793, 2744, 3690],
     [3754, 3707, 1934, 1931, 1931, 2797, 2794, 2794],
     [3758, 3755, 3755, 1, 1864, 1930, 1881, 2727],
     [2793, 2744, 3690, 3754, 3707, 1932, 1932, 1932],
     [2795, 2795, 2795, 3756, 3756, 3756, 1, 1864],
     [1935, 1930, 1881, 2727, 2798, 2793, 2744, 3690],
     [3759, 3754, 3707, 1933, 1936, 1929, 1929, 2796],
     [2799, 2792, 2792, 3757, 3760, 3753, 3753, 1],
     [1864, 1930, 1881, 2727, 2793, 2744, 3690, 3754],
     [3707, 1934, 1931, 1931, 1931, 2797, 2794, 2794],
     [2794, 3758, 3755, 3755, 3755, 1, 1864, 1930],
     [1881, 2727, 2793, 2744, 3690, 3754, 3707, 1931],
     [1931, 1931, 2794, 2794, 2794, 3755, 3755, 3755],
     [1, 1864, 1930, 1881, 2727, 2793, 2744, 3690],
     [3754, 3707, 1936, 1929, 1929, 2799, 2792, 2792],
     [3760, 3753, 3753, 1, 1930, 1881, 2793, 2744],
     [3754, 3707, 1929, 1929, 1929, 2792, 2792, 2792],
     [3753, 3753, 3753, 1, 1937, 1938, 1939, 1881],
     [2800, 2801, 2802, 2744, 3761, 3762, 3763, 3707],
     [1940, 1941, 1941, 2803, 2804, 2804, 3764, 3765],
     [3765, 1, 1864, 1943, 1881, 2727, 2806, 2744],
     [3690, 3767, 3707, 1942, 1942, 1942, 2805, 2805],
     [2805, 3766, 3766, 3766, 1, 1943, 1881, 2806],
     [2744, 3767, 3707, 1944, 1944, 1944, 2807, 2807],
     [2807, 3768, 3768, 3768, 1, 1943, 1881, 2806],
     [2744, 3767, 3707, 1945, 1945, 1945, 2808, 2808],
     [2808, 3769, 3769, 3769, 1, 1943, 1881, 2806],
     [2744, 3767, 3707, 1, 1924, 1925, 1926, 2787],
     [2788, 2789, 3748, 3749, 3750, 1927, 1928, 1928],
     [2790, 2791, 2791, 3751, 3752, 3752, 1, 1864],
     [1943, 1881, 2727, 2806, 2744, 3690, 3767, 3707],
     [1946, 1942, 1942, 2809, 2805, 2805, 3770, 3766]]"

definition sup_indicies_32 :: "int list list" where
  "sup_indicies_32 =
    [[3766, 1, 1864, 1943, 1881, 2727, 2806, 2744],
     [3690, 3767, 3707, 1947, 1944, 1944, 2810, 2807],
     [2807, 3771, 3768, 3768, 1, 1864, 1943, 1881],
     [2727, 2806, 2744, 3690, 3767, 3707, 1945, 1945],
     [1945, 2808, 2808, 2808, 3769, 3769, 3769, 1],
     [1864, 1948, 1943, 1881, 2727, 2811, 2806, 2744],
     [3690, 3772, 3767, 3707, 1946, 1949, 1942, 1942],
     [2809, 2812, 2805, 2805, 3770, 3773, 3766, 3766],
     [1, 1864, 1943, 1881, 2727, 2806, 2744, 3690],
     [3767, 3707, 1947, 1944, 1944, 1944, 2810, 2807],
     [2807, 2807, 3771, 3768, 3768, 3768, 1, 1864],
     [1943, 1881, 2727, 2806, 2744, 3690, 3767, 3707],
     [1944, 1944, 1944, 2807, 2807, 2807, 3768, 3768],
     [3768, 1, 1864, 1943, 1881, 2727, 2806, 2744],
     [3690, 3767, 3707, 1949, 1942, 1942, 2812, 2805],
     [2805, 3773, 3766, 3766, 1, 1943, 1881, 2806],
     [2744, 3767, 3707, 1942, 1942, 1942, 2805, 2805],
     [2805, 3766, 3766, 3766, 1, 1950, 1951, 1952],
     [1881, 2813, 2814, 2815, 2744, 3774, 3775, 3776],
     [3707, 1953, 1954, 1954, 2816, 2817, 2817, 3777],
     [3778, 3778, 1, 1864, 1956, 1881, 2727, 2819],
     [2744, 3690, 3780, 3707, 1955, 1955, 1955, 2818],
     [2818, 2818, 3779, 3779, 3779, 1, 1956, 1881],
     [2819, 2744, 3780, 3707, 1957, 1957, 1957, 2820],
     [2820, 2820, 3781, 3781, 3781, 1, 1956, 1881],
     [2819, 2744, 3780, 3707, 1958, 1958, 1958, 2821],
     [2821, 2821, 3782, 3782, 3782, 1, 1956, 1881],
     [2819, 2744, 3780, 3707, 1, 1937, 1938, 1939],
     [2800, 2801, 2802, 3761, 3762, 3763, 1940, 1941],
     [1941, 2803, 2804, 2804, 3764, 3765, 3765, 1],
     [1864, 1956, 1881, 2727, 2819, 2744, 3690, 3780],
     [3707, 1959, 1955, 1955, 2822, 2818, 2818, 3783],
     [3779, 3779, 1, 1864, 1956, 1881, 2727, 2819],
     [2744, 3690, 3780, 3707, 1960, 1957, 1957, 2823],
     [2820, 2820, 3784, 3781, 3781, 1, 1864, 1956],
     [1881, 2727, 2819, 2744, 3690, 3780, 3707, 1958],
     [1958, 1958, 2821, 2821, 2821, 3782, 3782, 3782],
     [1, 1864, 1961, 1956, 1881, 2727, 2824, 2819],
     [2744, 3690, 3785, 3780, 3707, 1959, 1962, 1955],
     [1955, 2822, 2825, 2818, 2818, 3783, 3786, 3779],
     [3779, 1, 1864, 1956, 1881, 2727, 2819, 2744],
     [3690, 3780, 3707, 1960, 1957, 1957, 1957, 2823],
     [2820, 2820, 2820, 3784, 3781, 3781, 3781, 1],
     [1864, 1956, 1881, 2727, 2819, 2744, 3690, 3780],
     [3707, 1957, 1957, 1957, 2820, 2820, 2820, 3781],
     [3781, 3781, 1, 1864, 1956, 1881, 2727, 2819],
     [2744, 3690, 3780, 3707, 1962, 1955, 1955, 2825],
     [2818, 2818, 3786, 3779, 3779, 1, 1956, 1881],
     [2819, 2744, 3780, 3707, 1955, 1955, 1955, 2818],
     [2818, 2818, 3779, 3779, 3779, 1, 1963, 2826],
     [3787, 1, 1964, 1965, 1966, 1881, 2827, 2828],
     [2829, 2744, 3788, 3789, 3790, 3707, 1967, 1968],
     [1968, 2830, 2831, 2831, 3791, 3792, 3792, 1],
     [1864, 1970, 1881, 2727, 2833, 2744, 3690, 3794],
     [3707, 1969, 1969, 1969, 2832, 2832, 2832, 3793],
     [3793, 3793, 1, 1970, 1881, 2833, 2744, 3794],
     [3707, 1971, 1971, 1971, 2834, 2834, 2834, 3795],
     [3795, 3795, 1, 1970, 1881, 2833, 2744, 3794],
     [3707, 1972, 1972, 1972, 2835, 2835, 2835, 3796],
     [3796, 3796, 1, 1970, 1881, 2833, 2744, 3794],
     [3707, 1, 1950, 1951, 1952, 2813, 2814, 2815],
     [3774, 3775, 3776, 1953, 1954, 1954, 2816, 2817],
     [2817, 3777, 3778, 3778, 1, 1864, 1970, 1881],
     [2727, 2833, 2744, 3690, 3794, 3707, 1973, 1969],
     [1969, 2836, 2832, 2832, 3797, 3793, 3793, 1],
     [1864, 1970, 1881, 2727, 2833, 2744, 3690, 3794],
     [3707, 1974, 1971, 1971, 2837, 2834, 2834, 3798],
     [3795, 3795, 1, 1864, 1970, 1881, 2727, 2833],
     [2744, 3690, 3794, 3707, 1972, 1972, 1972, 2835],
     [2835, 2835, 3796, 3796, 3796, 1, 1864, 1975],
     [1970, 1881, 2727, 2838, 2833, 2744, 3690, 3799],
     [3794, 3707, 1973, 1976, 1969, 1969, 2836, 2839],
     [2832, 2832, 3797, 3800, 3793, 3793, 1, 1864],
     [1970, 1881, 2727, 2833, 2744, 3690, 3794, 3707],
     [1974, 1971, 1971, 1971, 2837, 2834, 2834, 2834],
     [3798, 3795, 3795, 3795, 1, 1864, 1970, 1881],
     [2727, 2833, 2744, 3690, 3794, 3707, 1971, 1971],
     [1971, 2834, 2834, 2834, 3795, 3795, 3795, 1],
     [1864, 1970, 1881, 2727, 2833, 2744, 3690, 3794],
     [3707, 1976, 1969, 1969, 2839, 2832, 2832, 3800],
     [3793, 3793, 1, 1970, 1881, 2833, 2744, 3794],
     [3707, 1969, 1969, 1969, 2832, 2832, 2832, 3793],
     [3793, 3793, 1, 1640, 1640, 1640, 1640, 1641],
     [1977, 1978, 1640, 1642, 1640, 1643, 1977, 1640],
     [2622, 2623, 2840, 2841, 2622, 2624, 2622, 2625],
     [2840, 2622, 3358, 3359, 3801, 3802, 3358, 3360],
     [3358, 3361, 3801, 3358, 1640, 1979, 1979, 1979],
     [2622, 2842, 2842, 2842, 3358, 3803, 3803, 3803],
     [1, 1640, 1640, 1640, 1640, 1641, 1977, 1642],
     [1640, 1643, 1977, 1640, 2622, 2623, 2840, 2624],
     [2622, 2625, 2840, 2622, 3358, 3359, 3801, 3360],
     [3358, 3361, 3801, 3358, 1640, 1640, 1979, 1979],
     [1979, 2622, 2622, 2842, 2842, 2842, 3358, 3358],
     [3803, 3803, 3803, 1, 1640, 1640, 1640, 1640],
     [1641, 1977, 1980, 1640, 1642, 1640, 1643, 1977],
     [1640, 2622, 2623, 2840, 2843, 2622, 2624, 2622],
     [2625, 2840, 2622, 3358, 3359, 3801, 3804, 3358],
     [3360, 3358, 3361, 3801, 3358, 1640, 1979, 1979],
     [1979, 2622, 2842, 2842, 2842, 3358, 3803, 3803],
     [3803, 1, 1640, 1640, 1640, 1640, 1641, 1642],
     [1640, 1643, 1640, 1640, 2622, 2623, 2624, 2622],
     [2625, 2622, 2622, 3358, 3359, 3360, 3358, 3361],
     [3358, 3358, 1640, 1640, 1979, 1981, 1981, 2622],
     [2622, 2842, 2844, 2844, 3358, 3358, 3803, 3805],
     [3805, 1, 1657, 1640, 1986, 2639, 2640, 2639],
     [1640, 1641, 1982, 1983, 1640, 1984, 1985, 1640],
     [1643, 1982, 1640, 2622, 2623, 2845, 2846, 2622],
     [2847, 2644, 2622, 2625, 2845, 2622, 3358, 3359],
     [3806, 3807, 3358, 3808, 3809, 3358, 3361, 3806],
     [3358, 1640, 1981, 1981, 1981, 2622, 2844, 2844],
     [2844, 3358, 3805, 3805, 3805, 1, 1640, 1640],
     [1640, 1640, 1641, 1982, 1642, 1640, 1643, 1982],
     [1640, 2622, 2623, 2845, 2624, 2622, 2625, 2845],
     [2622, 3358, 3359, 3806, 3360, 3358, 3361, 3806],
     [3358, 1640, 1640, 1981, 1981, 1981, 2622, 2622],
     [2844, 2844, 2844, 3358, 3358, 3805, 3805, 3805],
     [1, 1657, 1640, 1986, 2639, 2640, 2639, 1640],
     [1641, 1984, 1985, 1640, 1643, 1640, 1640, 2622],
     [2623, 2847, 2644, 2622, 2625, 2622, 2622, 3358],
     [3359, 3808, 3809, 3358, 3361, 3358, 3358, 1640],
     [1640, 1979, 1981, 1981, 2622, 2622, 2842, 2844],
     [2844, 3358, 3358, 3803, 3805, 3805, 1, 1642],
     [1642, 1645, 1987, 1989, 1642, 1643, 1642, 1642],
     [2624, 2627, 2848, 2850, 2624, 2625, 2624, 2624],
     [3360, 3363, 3810, 3812, 3360, 3361, 3360, 3360],
     [1642, 1642, 1988, 1990, 1642, 1642, 2624, 2624],
     [2849, 2851, 2624, 2624, 3360, 3360, 3811, 3813],
     [3360, 3360, 1, 1642, 1642, 1645, 1991, 1642],
     [1643, 1642, 1642, 2624, 2627, 2852, 2624, 2625],
     [2624, 2624, 3360, 3363, 3814, 3360, 3361, 3360],
     [3360, 1642, 1642, 1992, 1642, 1642, 2624, 2624],
     [2853, 2624, 2624, 3360, 3360, 3815, 3360, 3360],
     [1, 1642, 1642, 1645, 1993, 1642, 1643, 1642],
     [1642, 2624, 2627, 2854, 2624, 2625, 2624, 2624],
     [3360, 3363, 3816, 3360, 3361, 3360, 3360, 1642],
     [1642, 1994, 1642, 1642, 2624, 2624, 2855, 2624],
     [2624, 3360, 3360, 3817, 3360, 3360, 1, 1642],
     [1642, 1645, 1642, 1642, 1643, 1642, 1642, 2624],
     [2627, 2624, 2624, 2625, 2624, 2624, 3360, 3363],
     [3360, 3360, 3361, 3360, 3360, 1642, 1642, 1995],
     [1642, 1642, 2624, 2624, 2856, 2624, 2624, 3360],
     [3360, 3818, 3360, 3360, 1, 1672, 1642, 1674],
     [2654, 2655, 2654, 1642, 1645, 1673, 1642, 1643],
     [1642, 1642, 2624, 2627, 2656, 2624, 2625, 2624],
     [2624, 3360, 3363, 3388, 3360, 3361, 3360, 3360],
     [1642, 1642, 1642, 1642, 1642, 2624, 2624, 2624],
     [2624, 2624, 3360, 3360, 3360, 3360, 3360, 1],
     [1672, 1642, 1674, 2654, 2655, 2654, 1642, 1645],
     [1673, 1642, 1643, 1642, 1642, 2624, 2627, 2656],
     [2624, 2625, 2624, 2624, 3360, 3363, 3388, 3360]]"

definition sup_indicies_33 :: "int list list" where
  "sup_indicies_33 =
    [[3361, 3360, 3360, 1642, 1642, 1995, 1642, 1642],
     [2624, 2624, 2856, 2624, 2624, 3360, 3360, 3818],
     [3360, 3360, 1, 1672, 1642, 1674, 2654, 2655],
     [2654, 1642, 1645, 1673, 1642, 1643, 1642, 1642],
     [2624, 2627, 2656, 2624, 2625, 2624, 2624, 3360],
     [3363, 3388, 3360, 3361, 3360, 3360, 1642, 1642],
     [1994, 1642, 1642, 2624, 2624, 2855, 2624, 2624],
     [3360, 3360, 3817, 3360, 3360, 1, 1672, 1642],
     [1674, 2654, 2655, 2654, 1642, 1645, 1673, 1642],
     [1643, 1642, 1642, 2624, 2627, 2656, 2624, 2625],
     [2624, 2624, 3360, 3363, 3388, 3360, 3361, 3360],
     [3360, 1642, 1642, 1996, 1642, 1642, 2624, 2624],
     [2857, 2624, 2624, 3360, 3360, 3819, 3360, 3360],
     [1, 1672, 1642, 1674, 2654, 2655, 2654, 1642],
     [1645, 1673, 1642, 1643, 1642, 1642, 2624, 2627],
     [2656, 2624, 2625, 2624, 2624, 3360, 3363, 3388],
     [3360, 3361, 3360, 3360, 1642, 1642, 1992, 1642],
     [1642, 2624, 2624, 2853, 2624, 2624, 3360, 3360],
     [3815, 3360, 3360, 1, 1672, 1642, 1674, 2654],
     [2655, 2654, 1642, 1645, 1997, 1673, 1642, 1643],
     [1642, 1642, 2624, 2627, 2858, 2656, 2624, 2625],
     [2624, 2624, 3360, 3363, 3820, 3388, 3360, 3361],
     [3360, 3360, 1642, 1642, 1996, 1992, 1642, 1642],
     [2624, 2624, 2857, 2853, 2624, 2624, 3360, 3360],
     [3819, 3815, 3360, 3360, 1, 1672, 1642, 1674],
     [2654, 2655, 2654, 1642, 1645, 1998, 1673, 1642],
     [1643, 1642, 1642, 2624, 2627, 2859, 2656, 2624],
     [2625, 2624, 2624, 3360, 3363, 3821, 3388, 3360],
     [3361, 3360, 3360, 1642, 1642, 1992, 1994, 1642],
     [1642, 2624, 2624, 2853, 2855, 2624, 2624, 3360],
     [3360, 3815, 3817, 3360, 3360, 1, 1672, 1642],
     [1674, 2654, 2655, 2654, 1642, 1645, 1999, 1673],
     [1642, 1643, 1642, 1642, 2624, 2627, 2860, 2656],
     [2624, 2625, 2624, 2624, 3360, 3363, 3822, 3388],
     [3360, 3361, 3360, 3360, 1642, 1642, 1994, 1995],
     [1642, 1642, 2624, 2624, 2855, 2856, 2624, 2624],
     [3360, 3360, 3817, 3818, 3360, 3360, 1, 1672],
     [1642, 1674, 2654, 2655, 2654, 1642, 1645, 1673],
     [1642, 1643, 1642, 1642, 2624, 2627, 2656, 2624],
     [2625, 2624, 2624, 3360, 3363, 3388, 3360, 3361],
     [3360, 3360, 1642, 1642, 1995, 1642, 1642, 1642],
     [2624, 2624, 2856, 2624, 2624, 2624, 3360, 3360],
     [3818, 3360, 3360, 3360, 1, 1640, 2000, 2000],
     [1640, 2000, 2002, 1640, 1640, 1640, 1643, 1675],
     [1675, 61, 67, 61, 68, 2000, 2001, 2000],
     [2003, 2004, 2005, 2000, 2003, 2004, 2005, 2000],
     [68, 68, 68, 68, 68, 3823, 3824, 3823],
     [3825, 3826, 3827, 3823, 3825, 3826, 3827, 3823],
     [2000, 2000, 2000, 2000, 2000, 2000, 68, 68],
     [68, 68, 68, 3823, 3823, 3823, 3823, 3823],
     [1, 1680, 1640, 2006, 2006, 1640, 2006, 2008],
     [2011, 1643, 1681, 1681, 71, 72, 71, 68],
     [2006, 2007, 2006, 2009, 2010, 2006, 2006, 68],
     [68, 68, 61, 73, 68, 68, 3828, 3829],
     [3828, 3830, 3831, 3828, 3828, 2006, 2006, 2006],
     [2006, 2006, 2006, 68, 68, 68, 68, 68],
     [3828, 3828, 3828, 3828, 3828, 1, 58, 71],
     [72, 71, 68, 68, 68, 61, 73, 68],
     [68, 68, 68, 68, 68, 2012, 2012, 2012],
     [68, 68, 68, 3832, 3832, 3832, 1, 58],
     [71, 72, 71, 68, 68, 68, 61, 73],
     [68, 68, 68, 68, 68, 68, 2006, 2006],
     [2006, 68, 68, 68, 3828, 3828, 3828, 1],
     [1680, 1640, 2022, 2022, 1640, 2022, 2016, 2009],
     [2024, 2011, 1643, 1687, 73, 76, 73, 78],
     [77, 2022, 2023, 2022, 1687, 2022, 2022, 77],
     [77, 77, 79, 77, 77, 3833, 3834, 3833],
     [3401, 3833, 3833, 2022, 2022, 2022, 2022, 2022],
     [2022, 77, 77, 77, 77, 77, 3833, 3833],
     [3833, 3833, 3833, 1, 1690, 1640, 2025, 2025],
     [1640, 2025, 2019, 1640, 2028, 1643, 1691, 1691],
     [82, 64, 82, 77, 2025, 2026, 2025, 2027],
     [2025, 2025, 77, 77, 77, 61, 77, 77],
     [3835, 3836, 3835, 3837, 3835, 3835, 2025, 2025],
     [2025, 2025, 2025, 2025, 77, 77, 77, 77],
     [77, 3835, 3835, 3835, 3835, 3835, 1, 58],
     [82, 64, 82, 77, 77, 77, 61, 77],
     [77, 77, 77, 77, 77, 2029, 2029, 2029],
     [77, 77, 77, 3838, 3838, 3838, 1, 58],
     [82, 64, 82, 77, 77, 77, 61, 77],
     [77, 77, 77, 77, 77, 2025, 2025, 2025],
     [77, 77, 77, 3835, 3835, 3835, 1, 1680],
     [1640, 2006, 2006, 1640, 2006, 2008, 2011, 1643],
     [1681, 1681, 71, 72, 71, 68, 2006, 2007],
     [2006, 2009, 2010, 2044, 2006, 2044, 2006, 68],
     [68, 68, 61, 73, 68, 68, 3828, 3829],
     [3828, 3830, 3831, 3839, 3828, 3839, 3828, 2006],
     [2006, 2006, 2006, 2006, 2006, 68, 68, 68],
     [68, 68, 3828, 3828, 3828, 3828, 3828, 1],
     [1705, 1640, 2006, 2006, 1640, 2006, 2008, 2047],
     [1643, 1681, 1681, 71, 72, 71, 68, 2006],
     [2007, 2006, 2045, 2046, 2006, 2006, 68, 68],
     [68, 61, 73, 68, 68, 3828, 3829, 3828],
     [3840, 3841, 3828, 3828, 2006, 2006, 2006, 2006],
     [2006, 2006, 68, 68, 68, 68, 68, 3828],
     [3828, 3828, 3828, 3828, 1, 1680, 1640, 2022],
     [2022, 1640, 2022, 2016, 2009, 2024, 2011, 1643],
     [1687, 73, 76, 73, 78, 2048, 2049, 2048],
     [1687, 1711, 2048, 77, 77, 77, 79, 77],
     [3842, 3843, 3842, 3401, 3562, 3842, 2022, 2048],
     [2048, 2048, 2048, 2048, 77, 77, 77, 77],
     [77, 3842, 3842, 3842, 3842, 3842, 1, 1690],
     [1640, 2025, 2025, 1640, 2025, 2019, 1640, 2028],
     [1643, 1691, 1691, 82, 64, 82, 2050, 2051],
     [2050, 2027, 1711, 2050, 77, 77, 77, 61],
     [77, 3844, 3845, 3844, 3837, 3562, 3844, 2025],
     [2050, 2050, 2050, 2050, 2050, 77, 77, 77],
     [77, 77, 3844, 3844, 3844, 3844, 3844, 1],
     [1206, 1716, 82, 64, 82, 1711, 1711, 1711],
     [1715, 1711, 77, 77, 77, 61, 77, 3562],
     [3562, 3562, 3566, 3562, 1711, 1711, 2052, 2052],
     [1711, 1711, 2052, 1711, 77, 77, 77, 77],
     [77, 3562, 3562, 3846, 3846, 3562, 3562, 3846],
     [3562, 1, 1206, 1716, 82, 64, 82, 1711],
     [1711, 1711, 1715, 1711, 77, 77, 77, 61],
     [77, 3562, 3562, 3562, 3566, 3562, 1711, 1711],
     [2050, 2050, 1711, 1711, 2050, 1711, 77, 77],
     [77, 77, 77, 3562, 3562, 3844, 3844, 3562],
     [3562, 3844, 3562, 1, 1680, 1640, 2006, 2006],
     [1640, 2006, 2008, 2011, 1643, 1681, 1681, 71],
     [72, 71, 68, 2006, 2007, 2006, 2009, 2010],
     [2053, 2054, 2006, 2053, 2054, 2006, 68, 68],
     [68, 61, 73, 68, 68, 3828, 3829, 3828],
     [3830, 3831, 3847, 3848, 3828, 3847, 3848, 3828],
     [2006, 2006, 2006, 2006, 2006, 2006, 68, 68],
     [68, 68, 68, 3828, 3828, 3828, 3828, 3828],
     [1, 1719, 1640, 2006, 2006, 1640, 2006, 2008],
     [2057, 1643, 1681, 1681, 71, 72, 71, 68],
     [2006, 2007, 2006, 2055, 2056, 2006, 2006, 68],
     [68, 68, 61, 73, 68, 68, 3828, 3829],
     [3828, 3849, 3850, 3828, 3828, 2006, 2006, 2006],
     [2006, 2006, 2006, 68, 68, 68, 68, 68],
     [3828, 3828, 3828, 3828, 3828, 1, 1680, 1640],
     [2006, 2006, 1640, 2006, 2008, 2011, 1643, 1681],
     [1681, 71, 72, 71, 68, 2006, 2007, 2006],
     [2009, 2010, 2058, 2006, 2058, 2006, 68, 68],
     [68, 61, 73, 68, 68, 3828, 3829, 3828],
     [3830, 3831, 3851, 3828, 3851, 3828, 2006, 2006],
     [2006, 2006, 2006, 2006, 68, 68, 68, 68],
     [68, 3828, 3828, 3828, 3828, 3828, 1, 1680],
     [1640, 2006, 2006, 1640, 2006, 2008, 2011, 1643],
     [1681, 1681, 71, 72, 71, 68, 2006, 2007],
     [2006, 2009, 2010, 2059, 2006, 2059, 2006, 68],
     [68, 68, 61, 73, 68, 68, 3828, 3829],
     [3828, 3830, 3831, 3852, 3828, 3852, 3828, 2006],
     [2006, 2006, 2006, 2006, 2006, 68, 68, 68],
     [68, 68, 3828, 3828, 3828, 3828, 3828, 1],
     [1680, 1640, 2006, 2006, 1640, 2006, 2008, 2011],
     [1643, 1681, 1681, 71, 72, 71, 68, 2006],
     [2007, 2006, 2009, 2060, 2006, 2006, 68, 68]]"

definition sup_indicies_34 :: "int list list" where
  "sup_indicies_34 =
    [[68, 61, 73, 68, 68, 3828, 3829, 3828],
     [3830, 3853, 3828, 3828, 2006, 2006, 2006, 2006],
     [2006, 2006, 68, 68, 68, 68, 68, 3828],
     [3828, 3828, 3828, 3828, 1, 1680, 1640, 2022],
     [2022, 1640, 2022, 2016, 2009, 2024, 2011, 1643],
     [1687, 73, 76, 73, 78, 2061, 2062, 2061],
     [1687, 1728, 2061, 77, 77, 77, 79, 77],
     [3854, 3855, 3854, 3401, 3576, 3854, 2022, 2061],
     [2061, 2061, 2061, 2061, 77, 77, 77, 77],
     [77, 3854, 3854, 3854, 3854, 3854, 1, 1729],
     [1640, 2025, 2025, 1640, 2025, 2019, 1640, 2066],
     [1643, 1691, 1691, 82, 64, 82, 2063, 2064],
     [2063, 2065, 1734, 2063, 77, 77, 77, 61],
     [77, 3856, 3857, 3856, 3858, 3580, 3856, 2025],
     [2063, 2063, 2063, 2063, 2063, 77, 77, 77],
     [77, 77, 3856, 3856, 3856, 3856, 3856, 1],
     [1735, 1738, 82, 64, 82, 1734, 1734, 1734],
     [1737, 1734, 77, 77, 77, 61, 77, 3580],
     [3580, 3580, 3582, 3580, 1734, 1734, 2067, 2067],
     [1734, 1734, 2067, 1734, 77, 77, 77, 77],
     [77, 3580, 3580, 3859, 3859, 3580, 3580, 3859],
     [3580, 1, 1735, 1738, 82, 64, 82, 1734],
     [1734, 1734, 1737, 1734, 77, 77, 77, 61],
     [77, 3580, 3580, 3580, 3582, 3580, 1734, 1734],
     [2063, 2063, 1734, 1734, 2063, 1734, 77, 77],
     [77, 77, 77, 3580, 3580, 3856, 3856, 3580],
     [3580, 3856, 3580, 1, 1680, 1640, 2006, 2006],
     [1640, 2006, 2008, 2011, 1643, 1681, 1681, 71],
     [72, 71, 68, 2006, 2007, 2006, 2009, 2010],
     [2068, 2006, 2068, 2006, 68, 68, 68, 61],
     [73, 68, 68, 3828, 3829, 3828, 3830, 3831],
     [3860, 3828, 3860, 3828, 2006, 2006, 2006, 2006],
     [2006, 2006, 68, 68, 68, 68, 68, 3828],
     [3828, 3828, 3828, 3828, 1, 1680, 1640, 2006],
     [2006, 1640, 2006, 2008, 2011, 1643, 1681, 1681],
     [71, 72, 71, 68, 2006, 2007, 2006, 2009],
     [2010, 2069, 2006, 2069, 2006, 68, 68, 68],
     [61, 73, 68, 68, 3828, 3829, 3828, 3830],
     [3831, 3861, 3828, 3861, 3828, 2006, 2006, 2006],
     [2006, 2006, 2006, 68, 68, 68, 68, 68],
     [3828, 3828, 3828, 3828, 3828, 1, 1680, 1640],
     [2006, 2006, 1640, 2006, 2008, 2011, 1643, 1681],
     [1681, 71, 72, 71, 68, 2006, 2007, 2006],
     [2009, 2010, 2070, 2006, 2070, 2006, 68, 68],
     [68, 61, 73, 68, 68, 3828, 3829, 3828],
     [3830, 3831, 3862, 3828, 3862, 3828, 2006, 2006],
     [2006, 2006, 2006, 2006, 68, 68, 68, 68],
     [68, 3828, 3828, 3828, 3828, 3828, 1, 1680],
     [1640, 2006, 2006, 1640, 2006, 2008, 2011, 1643],
     [1681, 1681, 71, 72, 71, 68, 2006, 2007],
     [2006, 2009, 2010, 2071, 2006, 2071, 2006, 68],
     [68, 68, 61, 73, 68, 68, 3828, 3829],
     [3828, 3830, 3831, 3863, 3828, 3863, 3828, 2006],
     [2006, 2006, 2006, 2006, 2006, 68, 68, 68],
     [68, 68, 3828, 3828, 3828, 3828, 3828, 1],
     [1680, 1640, 2006, 2006, 1640, 2006, 2008, 2011],
     [1643, 1681, 1681, 71, 72, 71, 68, 2006],
     [2007, 2006, 2009, 2010, 2072, 2006, 2072, 2006],
     [68, 68, 68, 61, 73, 68, 68, 3828],
     [3829, 3828, 3830, 3831, 3864, 3828, 3864, 3828],
     [2006, 2006, 2006, 2006, 2006, 2006, 68, 68],
     [68, 68, 68, 3828, 3828, 3828, 3828, 3828],
     [1, 1680, 1640, 2006, 2006, 1640, 2006, 2008],
     [2011, 1643, 1681, 1681, 71, 72, 71, 68],
     [2006, 2007, 2006, 2009, 2010, 2073, 2006, 2073],
     [2006, 68, 68, 68, 61, 73, 68, 68],
     [3828, 3829, 3828, 3830, 3831, 3865, 3828, 3865],
     [3828, 2006, 2006, 2006, 2006, 2006, 2006, 68],
     [68, 68, 68, 68, 3828, 3828, 3828, 3828],
     [3828, 1, 1680, 1640, 2006, 2006, 1640, 2006],
     [2008, 2011, 1643, 1681, 1681, 71, 72, 71],
     [68, 2006, 2007, 2006, 2009, 2010, 2074, 2006],
     [2074, 2006, 68, 68, 68, 61, 73, 68],
     [68, 3828, 3829, 3828, 3830, 3831, 3866, 3828],
     [3866, 3828, 2006, 2006, 2006, 2006, 2006, 2006],
     [68, 68, 68, 68, 68, 3828, 3828, 3828],
     [3828, 3828, 1, 1680, 1640, 2006, 2006, 1640],
     [2006, 2008, 2011, 1643, 1681, 1681, 71, 72],
     [71, 68, 2006, 2007, 2006, 2009, 2010, 2075],
     [2006, 2075, 2006, 68, 68, 68, 61, 73],
     [68, 68, 3828, 3829, 3828, 3830, 3831, 3867],
     [3828, 3867, 3828, 2006, 2006, 2006, 2006, 2006],
     [2006, 68, 68, 68, 68, 68, 3828, 3828],
     [3828, 3828, 3828, 1, 1680, 1640, 2006, 2006],
     [1640, 2006, 2008, 2011, 1643, 1681, 1681, 71],
     [72, 71, 68, 2006, 2007, 2006, 2009, 2076],
     [2006, 2006, 68, 68, 68, 61, 73, 68],
     [68, 3828, 3829, 3828, 3830, 3868, 3828, 3828],
     [2006, 2006, 2006, 2006, 2006, 2006, 68, 68],
     [68, 68, 68, 3828, 3828, 3828, 3828, 3828],
     [1, 1680, 1640, 2022, 2022, 1640, 2022, 2016],
     [2009, 2024, 2011, 1643, 1687, 73, 76, 73],
     [78, 2077, 2078, 2077, 2079, 2080, 2081, 2082],
     [1687, 1754, 2079, 2080, 2081, 2082, 2077, 77],
     [77, 77, 79, 77, 3869, 3870, 3869, 3871],
     [3872, 3873, 3874, 3401, 3598, 3871, 3872, 3873],
     [3874, 3869, 2022, 2077, 2077, 2077, 2077, 2077],
     [77, 77, 77, 77, 77, 3869, 3869, 3869],
     [3869, 3869, 1, 1755, 1640, 2025, 2025, 1640],
     [2025, 2019, 1640, 2086, 1643, 1691, 1691, 82],
     [64, 82, 2083, 2084, 2083, 2085, 1760, 2083],
     [77, 77, 77, 61, 77, 3875, 3876, 3875],
     [3877, 3602, 3875, 2025, 2083, 2083, 2083, 2083],
     [2083, 77, 77, 77, 77, 77, 3875, 3875],
     [3875, 3875, 3875, 1, 1761, 1764, 82, 64],
     [82, 1760, 1760, 1760, 1763, 1760, 77, 77],
     [77, 61, 77, 3602, 3602, 3602, 3604, 3602],
     [1760, 1760, 2087, 2087, 1760, 1760, 2087, 1760],
     [77, 77, 77, 77, 77, 3602, 3602, 3878],
     [3878, 3602, 3602, 3878, 3602, 1, 1761, 1764],
     [82, 64, 82, 1760, 1760, 1760, 1763, 1760],
     [77, 77, 77, 61, 77, 3602, 3602, 3602],
     [3604, 3602, 1760, 1760, 2083, 2083, 1760, 1760],
     [2083, 1760, 77, 77, 77, 77, 77, 3602],
     [3602, 3875, 3875, 3602, 3602, 3875, 3602, 1],
     [1755, 1640, 2025, 2025, 1640, 2025, 2019, 1640],
     [2086, 1643, 1691, 1691, 82, 64, 82, 2083],
     [2084, 2083, 2085, 2088, 1760, 2088, 2083, 77],
     [77, 77, 61, 77, 3875, 3876, 3875, 3877],
     [3879, 3602, 3879, 3875, 2025, 2083, 2083, 2083],
     [2083, 2083, 77, 77, 77, 77, 77, 3875],
     [3875, 3875, 3875, 3875, 1, 1755, 1640, 2025],
     [2025, 1640, 2025, 2019, 1640, 2086, 1643, 1691],
     [1691, 82, 64, 82, 2083, 2084, 2083, 2085],
     [2089, 1760, 2089, 2083, 77, 77, 77, 61],
     [77, 3875, 3876, 3875, 3877, 3880, 3602, 3880],
     [3875, 2025, 2083, 2083, 2083, 2083, 2083, 77],
     [77, 77, 77, 77, 3875, 3875, 3875, 3875],
     [3875, 1, 1755, 1640, 2025, 2025, 1640, 2025],
     [2019, 1640, 2086, 1643, 1691, 1691, 82, 64],
     [82, 2083, 2084, 2083, 2085, 2090, 1760, 2090],
     [2083, 77, 77, 77, 61, 77, 3875, 3876],
     [3875, 3877, 3881, 3602, 3881, 3875, 2025, 2083],
     [2083, 2083, 2083, 2083, 77, 77, 77, 77],
     [77, 3875, 3875, 3875, 3875, 3875, 1, 1768],
     [1640, 2025, 2025, 1640, 2025, 2019, 1640, 2092],
     [1643, 1691, 1691, 82, 64, 82, 2083, 2084],
     [2083, 2091, 1760, 2083, 77, 77, 77, 61],
     [77, 3875, 3876, 3875, 3882, 3602, 3875, 2025],
     [2083, 2083, 2083, 2083, 2083, 77, 77, 77],
     [77, 77, 3875, 3875, 3875, 3875, 3875, 1],
     [1755, 1640, 2025, 2025, 1640, 2025, 2019, 1640],
     [2086, 1643, 1691, 1691, 82, 64, 82, 2083],
     [2084, 2083, 2085, 2093, 2094, 1760, 2093, 2094],
     [2083, 77, 77, 77, 61, 77, 3875, 3876],
     [3875, 3877, 3883, 3884, 3602, 3883, 3884, 3875],
     [2025, 2083, 2083, 2083, 2083, 2083, 77, 77],
     [77, 77, 77, 3875, 3875, 3875, 3875, 3875],
     [1, 1755, 1640, 2025, 2025, 1640, 2025, 2019],
     [1640, 2086, 1643, 1691, 1691, 82, 64, 82]]"

definition sup_indicies_35 :: "int list list" where
  "sup_indicies_35 =
    [[2083, 2084, 2083, 2085, 2095, 1760, 2095, 2083],
     [77, 77, 77, 61, 77, 3875, 3876, 3875],
     [3877, 3885, 3602, 3885, 3875, 2025, 2083, 2083],
     [2083, 2083, 2083, 77, 77, 77, 77, 77],
     [3875, 3875, 3875, 3875, 3875, 1, 1774, 1640],
     [2025, 2025, 1640, 2025, 2019, 1640, 2097, 1643],
     [1691, 1691, 82, 64, 82, 2083, 2084, 2083],
     [2096, 1760, 2083, 77, 77, 77, 61, 77],
     [3875, 3876, 3875, 3886, 3602, 3875, 2025, 2083],
     [2083, 2083, 2083, 2083, 77, 77, 77, 77],
     [77, 3875, 3875, 3875, 3875, 3875, 1, 1755],
     [1640, 2025, 2025, 1640, 2025, 2019, 1640, 2086],
     [1643, 1691, 1691, 82, 64, 82, 2083, 2084],
     [2083, 2085, 2098, 1760, 2098, 2083, 77, 77],
     [77, 61, 77, 3875, 3876, 3875, 3877, 3887],
     [3602, 3887, 3875, 2025, 2083, 2083, 2083, 2083],
     [2083, 77, 77, 77, 77, 77, 3875, 3875],
     [3875, 3875, 3875, 1, 1778, 1640, 2025, 2025],
     [1640, 2025, 2019, 1640, 2100, 1643, 1691, 1691],
     [82, 64, 82, 2083, 2084, 2083, 2099, 1760],
     [2083, 77, 77, 77, 61, 77, 3875, 3876],
     [3875, 3888, 3602, 3875, 2025, 2083, 2083, 2083],
     [2083, 2083, 77, 77, 77, 77, 77, 3875],
     [3875, 3875, 3875, 3875, 1, 1755, 1640, 2025],
     [2025, 1640, 2025, 2019, 1640, 2086, 1643, 1691],
     [1691, 82, 64, 82, 2083, 2084, 2083, 2085],
     [2101, 1760, 2101, 2083, 77, 77, 77, 61],
     [77, 3875, 3876, 3875, 3877, 3889, 3602, 3889],
     [3875, 2025, 2083, 2083, 2083, 2083, 2083, 77],
     [77, 77, 77, 77, 3875, 3875, 3875, 3875],
     [3875, 1, 1755, 1640, 2025, 2025, 1640, 2025],
     [2019, 1640, 2086, 1643, 1691, 1691, 82, 64],
     [82, 2083, 2084, 2083, 2085, 2102, 1760, 2102],
     [2083, 77, 77, 77, 61, 77, 3875, 3876],
     [3875, 3877, 3890, 3602, 3890, 3875, 2025, 2083],
     [2083, 2083, 2083, 2083, 77, 77, 77, 77],
     [77, 3875, 3875, 3875, 3875, 3875, 1, 1783],
     [1640, 2025, 2025, 1640, 2025, 2019, 1640, 2104],
     [1643, 1691, 1691, 82, 64, 82, 2083, 2084],
     [2083, 2103, 1760, 2083, 77, 77, 77, 61],
     [77, 3875, 3876, 3875, 3891, 3602, 3875, 2025],
     [2083, 2083, 2083, 2083, 2083, 77, 77, 77],
     [77, 77, 3875, 3875, 3875, 3875, 3875, 1],
     [1755, 1640, 2025, 2025, 1640, 2025, 2019, 1640],
     [2086, 1643, 1691, 1691, 82, 64, 82, 2083],
     [2084, 2083, 2085, 2105, 1760, 2105, 2083, 77],
     [77, 77, 61, 77, 3875, 3876, 3875, 3877],
     [3892, 3602, 3892, 3875, 2025, 2083, 2083, 2083],
     [2083, 2083, 77, 77, 77, 77, 77, 3875],
     [3875, 3875, 3875, 3875, 1, 1787, 1640, 2025],
     [2025, 1640, 2025, 2019, 1640, 2107, 1643, 1691],
     [1691, 82, 64, 82, 2083, 2084, 2083, 2106],
     [2108, 1760, 2108, 2083, 77, 77, 77, 61],
     [77, 3875, 3876, 3875, 3893, 3894, 3602, 3894],
     [3875, 2025, 2083, 2083, 2083, 2083, 2083, 77],
     [77, 77, 77, 77, 3875, 3875, 3875, 3875],
     [3875, 1, 1791, 1640, 2025, 2025, 1640, 2025],
     [2019, 1640, 2110, 1643, 1691, 1691, 82, 64],
     [82, 2083, 2084, 2083, 2109, 1760, 2083, 77],
     [77, 77, 61, 77, 3875, 3876, 3875, 3895],
     [3602, 3875, 2025, 2083, 2083, 2083, 2083, 2083],
     [77, 77, 77, 77, 77, 3875, 3875, 3875],
     [3875, 3875, 1, 1640, 1640, 1640, 1640, 1641],
     [2111, 2112, 2113, 1642, 1640, 1643, 1640, 1640],
     [2622, 2623, 2861, 2862, 2863, 2624, 2622, 2625],
     [2622, 2622, 3358, 3359, 3896, 3897, 3898, 3360],
     [3358, 3361, 3358, 3358, 1640, 1640, 2114, 1981],
     [1981, 2622, 2622, 2864, 2844, 2844, 3358, 3358],
     [3899, 3805, 3805, 1, 1640, 1640, 1640, 1640],
     [1641, 1977, 2115, 1640, 1642, 1640, 1643, 1977],
     [1640, 2622, 2623, 2840, 2865, 2622, 2624, 2622],
     [2625, 2840, 2622, 3358, 3359, 3801, 3900, 3358],
     [3360, 3358, 3361, 3801, 3358, 1640, 1979, 1979],
     [1979, 2622, 2842, 2842, 2842, 3358, 3803, 3803],
     [3803, 1, 1640, 1640, 1640, 1640, 1641, 2116],
     [2117, 2118, 1642, 1640, 1643, 1640, 1640, 2622],
     [2623, 2866, 2867, 2868, 2624, 2622, 2625, 2622],
     [2622, 3358, 3359, 3901, 3902, 3903, 3360, 3358],
     [3361, 3358, 3358, 1640, 1640, 2119, 1981, 1981],
     [2622, 2622, 2869, 2844, 2844, 3358, 3358, 3904],
     [3805, 3805, 1, 1640, 1640, 1640, 1640, 1641],
     [1977, 2120, 1640, 1642, 1640, 1643, 1977, 1640],
     [2622, 2623, 2840, 2870, 2622, 2624, 2622, 2625],
     [2840, 2622, 3358, 3359, 3801, 3905, 3358, 3360],
     [3358, 3361, 3801, 3358, 1640, 1979, 1979, 1979],
     [2622, 2842, 2842, 2842, 3358, 3803, 3803, 3803],
     [1, 1640, 1640, 1640, 1640, 1641, 2121, 2122],
     [2123, 1642, 1640, 1643, 1640, 1640, 2622, 2623],
     [2871, 2872, 2873, 2624, 2622, 2625, 2622, 2622],
     [3358, 3359, 3906, 3907, 3908, 3360, 3358, 3361],
     [3358, 3358, 1640, 1640, 2124, 1981, 1981, 2622],
     [2622, 2874, 2844, 2844, 3358, 3358, 3909, 3805],
     [3805, 1, 1812, 1640, 2127, 2675, 2676, 2675],
     [1640, 1641, 1977, 1980, 1640, 2125, 2126, 1640],
     [1643, 1977, 1640, 2622, 2623, 2840, 2843, 2622],
     [2875, 2678, 2622, 2625, 2840, 2622, 3358, 3359],
     [3801, 3804, 3358, 3910, 3911, 3358, 3361, 3801],
     [3358, 1640, 1979, 1979, 1979, 2622, 2842, 2842],
     [2842, 3358, 3803, 3803, 3803, 1, 1812, 1640],
     [2127, 2675, 2676, 2675, 1640, 1641, 1977, 1980],
     [1640, 2125, 2126, 1640, 1643, 1977, 1640, 2622],
     [2623, 2840, 2843, 2622, 2875, 2678, 2622, 2625],
     [2840, 2622, 3358, 3359, 3801, 3804, 3358, 3910],
     [3911, 3358, 3361, 3801, 3358, 1640, 2124, 1979],
     [1979, 2622, 2874, 2842, 2842, 3358, 3909, 3803],
     [3803, 1, 1812, 1640, 2127, 2675, 2676, 2675],
     [1640, 1641, 1977, 1980, 1640, 2125, 2126, 1640],
     [1643, 1977, 1640, 2622, 2623, 2840, 2843, 2622],
     [2875, 2678, 2622, 2625, 2840, 2622, 3358, 3359],
     [3801, 3804, 3358, 3910, 3911, 3358, 3361, 3801],
     [3358, 1640, 2121, 1979, 1979, 2622, 2871, 2842],
     [2842, 3358, 3906, 3803, 3803, 1, 1812, 1640],
     [2127, 2675, 2676, 2675, 1640, 1641, 1977, 1980],
     [1640, 2128, 2125, 2126, 1640, 1643, 1977, 1640],
     [2622, 2623, 2840, 2843, 2622, 2876, 2875, 2678],
     [2622, 2625, 2840, 2622, 3358, 3359, 3801, 3804],
     [3358, 3912, 3910, 3911, 3358, 3361, 3801, 3358],
     [1640, 2124, 2121, 1979, 1979, 2622, 2874, 2871],
     [2842, 2842, 3358, 3909, 3906, 3803, 3803, 1],
     [1812, 1640, 2127, 2675, 2676, 2675, 1640, 1641],
     [1977, 1980, 1640, 2125, 2126, 1640, 1643, 1977],
     [1640, 2622, 2623, 2840, 2843, 2622, 2875, 2678],
     [2622, 2625, 2840, 2622, 3358, 3359, 3801, 3804],
     [3358, 3910, 3911, 3358, 3361, 3801, 3358, 1640],
     [2121, 1979, 1979, 1979, 2622, 2871, 2842, 2842],
     [2842, 3358, 3906, 3803, 3803, 3803, 1, 1640],
     [1640, 1640, 1640, 1641, 1977, 2120, 1640, 1642],
     [1640, 1643, 1977, 1640, 2622, 2623, 2840, 2870],
     [2622, 2624, 2622, 2625, 2840, 2622, 3358, 3359],
     [3801, 3905, 3358, 3360, 3358, 3361, 3801, 3358],
     [1640, 2119, 1979, 1979, 2622, 2869, 2842, 2842],
     [3358, 3904, 3803, 3803, 1, 1640, 1640, 1640],
     [1640, 1641, 1977, 2120, 1640, 1642, 1640, 1643],
     [1977, 1640, 2622, 2623, 2840, 2870, 2622, 2624],
     [2622, 2625, 2840, 2622, 3358, 3359, 3801, 3905],
     [3358, 3360, 3358, 3361, 3801, 3358, 1640, 2116],
     [1979, 1979, 2622, 2866, 2842, 2842, 3358, 3901],
     [3803, 3803, 1, 1640, 1640, 1640, 1640, 1641],
     [1977, 2120, 1640, 2129, 1642, 1640, 1643, 1977],
     [1640, 2622, 2623, 2840, 2870, 2622, 2877, 2624],
     [2622, 2625, 2840, 2622, 3358, 3359, 3801, 3905],
     [3358, 3913, 3360, 3358, 3361, 3801, 3358, 1640],
     [2119, 2116, 1979, 1979, 2622, 2869, 2866, 2842],
     [2842, 3358, 3904, 3901, 3803, 3803, 1, 1640],
     [1640, 1640, 1640, 1641, 1977, 2120, 1640, 1642],
     [1640, 1643, 1977, 1640, 2622, 2623, 2840, 2870],
     [2622, 2624, 2622, 2625, 2840, 2622, 3358, 3359],
     [3801, 3905, 3358, 3360, 3358, 3361, 3801, 3358],
     [1640, 2116, 1979, 1979, 1979, 2622, 2866, 2842],
     [2842, 2842, 3358, 3901, 3803, 3803, 3803, 1]]"

definition sup_indicies_36 :: "int list list" where
  "sup_indicies_36 =
    [[1640, 1640, 1640, 1640, 1641, 1977, 2115, 1640],
     [1642, 1640, 1643, 1977, 1640, 2622, 2623, 2840],
     [2865, 2622, 2624, 2622, 2625, 2840, 2622, 3358],
     [3359, 3801, 3900, 3358, 3360, 3358, 3361, 3801],
     [3358, 1640, 2114, 1979, 1979, 2622, 2864, 2842],
     [2842, 3358, 3899, 3803, 3803, 1, 1640, 1640],
     [1640, 1640, 1641, 1977, 2115, 1640, 1642, 1640],
     [1643, 1977, 1640, 2622, 2623, 2840, 2865, 2622],
     [2624, 2622, 2625, 2840, 2622, 3358, 3359, 3801],
     [3900, 3358, 3360, 3358, 3361, 3801, 3358, 1640],
     [2111, 1979, 1979, 2622, 2861, 2842, 2842, 3358],
     [3896, 3803, 3803, 1, 1640, 1640, 1640, 1640],
     [1641, 1977, 2115, 1640, 2130, 1642, 1640, 1643],
     [1977, 1640, 2622, 2623, 2840, 2865, 2622, 2878],
     [2624, 2622, 2625, 2840, 2622, 3358, 3359, 3801],
     [3900, 3358, 3914, 3360, 3358, 3361, 3801, 3358],
     [1640, 2114, 2111, 1979, 1979, 2622, 2864, 2861],
     [2842, 2842, 3358, 3899, 3896, 3803, 3803, 1],
     [1640, 1640, 1640, 1640, 1641, 1977, 2115, 1640],
     [1642, 1640, 1643, 1977, 1640, 2622, 2623, 2840],
     [2865, 2622, 2624, 2622, 2625, 2840, 2622, 3358],
     [3359, 3801, 3900, 3358, 3360, 3358, 3361, 3801],
     [3358, 1640, 2111, 1979, 1979, 1979, 2622, 2861],
     [2842, 2842, 2842, 3358, 3896, 3803, 3803, 3803],
     [1, 1640, 1640, 1640, 1640, 1641, 1977, 1978],
     [1640, 1642, 1640, 1643, 1977, 1640, 2622, 2623],
     [2840, 2841, 2622, 2624, 2622, 2625, 2840, 2622],
     [3358, 3359, 3801, 3802, 3358, 3360, 3358, 3361],
     [3801, 3358, 1640, 2131, 1979, 1979, 2622, 2879],
     [2842, 2842, 3358, 3915, 3803, 3803, 1, 1640],
     [1640, 1640, 1640, 1641, 1977, 1978, 1640, 1642],
     [1640, 1643, 1977, 1640, 2622, 2623, 2840, 2841],
     [2622, 2624, 2622, 2625, 2840, 2622, 3358, 3359],
     [3801, 3802, 3358, 3360, 3358, 3361, 3801, 3358],
     [1640, 2132, 1979, 1979, 2622, 2880, 2842, 2842],
     [3358, 3916, 3803, 3803, 1, 1640, 1640, 1640],
     [1640, 1641, 1977, 1978, 1640, 2133, 1642, 1640],
     [1643, 1977, 1640, 2622, 2623, 2840, 2841, 2622],
     [2881, 2624, 2622, 2625, 2840, 2622, 3358, 3359],
     [3801, 3802, 3358, 3917, 3360, 3358, 3361, 3801],
     [3358, 1640, 2131, 2132, 1979, 1979, 2622, 2879],
     [2880, 2842, 2842, 3358, 3915, 3916, 3803, 3803],
     [1, 1640, 1640, 1640, 1640, 1641, 1977, 1978],
     [1640, 1642, 1640, 1643, 1977, 1640, 2622, 2623],
     [2840, 2841, 2622, 2624, 2622, 2625, 2840, 2622],
     [3358, 3359, 3801, 3802, 3358, 3360, 3358, 3361],
     [3801, 3358, 1640, 2132, 1979, 1979, 1979, 2622],
     [2880, 2842, 2842, 2842, 3358, 3916, 3803, 3803],
     [3803, 1, 1184, 1185, 1184, 1186, 1186, 1186],
     [1186, 1187, 1186, 1204, 2134, 2184, 2882, 2896],
     [3918, 1186, 1204, 1204, 1204, 1204, 2184, 2184],
     [2184, 2184, 2896, 2896, 2896, 2896, 1, 1184],
     [1185, 1184, 1186, 1186, 1186, 1186, 1187, 1186],
     [1204, 1205, 2135, 2135, 2184, 2185, 2883, 2883],
     [2896, 2897, 3919, 3919, 1186, 1204, 1204, 1204],
     [1204, 2184, 2184, 2184, 2184, 2896, 2896, 2896],
     [2896, 1, 1184, 1185, 1184, 1186, 1186, 1186],
     [1186, 1187, 1186, 1204, 1205, 2136, 2136, 2184],
     [2185, 2884, 2884, 2896, 2897, 3920, 3920, 1186],
     [1204, 1204, 1204, 1204, 2184, 2184, 2184, 2184],
     [2896, 2896, 2896, 2896, 1, 1184, 1185, 1184],
     [1186, 1186, 1186, 1186, 1187, 1186, 1204, 2137],
     [2184, 2885, 2896, 3921, 1186, 1204, 1204, 1204],
     [1204, 2184, 2184, 2184, 2184, 2896, 2896, 2896],
     [2896, 1, 2138, 2138, 2140, 2886, 2886, 2888],
     [3922, 3922, 3924, 2139, 2139, 2138, 2138, 2138],
     [2887, 2887, 2886, 2886, 2886, 3923, 3923, 3922],
     [3922, 3922, 1, 2141, 2889, 2890, 2889, 2142],
     [2143, 2891, 2892, 3925, 3926, 2142, 2142, 2142],
     [2142, 2142, 2891, 2891, 2891, 2891, 2891, 3925],
     [3925, 3925, 3925, 3925, 1, 61, 67, 61],
     [68, 68, 68, 68, 68, 2144, 2145, 2145],
     [68, 3927, 3928, 3928, 68, 68, 2144, 2144],
     [2144, 68, 68, 68, 3927, 3927, 3927, 1],
     [1680, 71, 72, 71, 68, 68, 68, 68],
     [68, 2146, 2147, 2148, 68, 61, 73, 3929],
     [3930, 3931, 68, 68, 2146, 2146, 2146, 68],
     [68, 68, 3929, 3929, 3929, 1, 2149, 2149],
     [2149, 2149, 2149, 73, 76, 73, 78, 77],
     [2149, 2150, 2149, 2149, 2149, 77, 77, 77],
     [79, 77, 77, 3932, 3933, 3932, 3934, 3932],
     [3932, 2149, 2149, 2149, 2149, 2149, 2149, 77],
     [77, 77, 77, 77, 3932, 3932, 3932, 3932],
     [3932, 1, 1690, 2151, 2151, 2151, 2151, 2151],
     [2151, 82, 64, 82, 77, 2151, 2152, 2151],
     [2153, 2151, 2151, 77, 77, 77, 61, 77],
     [77, 3935, 3936, 3935, 3937, 3935, 3935, 2151],
     [2151, 2151, 2151, 2151, 2151, 77, 77, 77],
     [77, 77, 3935, 3935, 3935, 3935, 3935, 1],
     [58, 82, 64, 82, 77, 77, 77, 61],
     [77, 77, 77, 77, 77, 77, 2154, 2154],
     [2154, 77, 77, 77, 3938, 3938, 3938, 1],
     [58, 82, 64, 82, 77, 77, 77, 61],
     [77, 77, 77, 77, 77, 77, 2151, 2151],
     [2151, 77, 77, 77, 3935, 3935, 3935, 1],
     [1690, 2151, 2152, 2153, 2151, 2151, 2151, 93],
     [3940, 2151, 2151, 2151, 2151, 2151, 2151, 2151],
     [92, 92, 92, 3939, 3939, 3939, 1, 1690],
     [2151, 2152, 2153, 2151, 2151, 2151, 95, 3942],
     [2151, 2151, 2151, 2151, 2151, 2151, 2151, 94],
     [94, 94, 3941, 3941, 3941, 1, 1690, 2151],
     [2152, 2153, 2151, 2151, 2151, 95, 3942, 2151],
     [2151, 2151, 2151, 2151, 2151, 2151, 96, 96],
     [96, 3943, 3943, 3943, 1, 1690, 2151, 2152],
     [2153, 2151, 2151, 2151, 95, 3942, 2151, 2151],
     [2151, 2151, 2151, 2151, 2151, 97, 97, 97],
     [3944, 3944, 3944, 1, 1690, 2151, 2152, 2153],
     [2151, 2151, 2151, 2151, 95, 3942, 2151, 2151],
     [2151, 2151, 1, 1690, 2151, 2152, 2153, 2151],
     [2151, 2151, 99, 3946, 2151, 2151, 2151, 2151],
     [2151, 2151, 2151, 98, 98, 98, 3945, 3945],
     [3945, 1, 1690, 2151, 2152, 2153, 2151, 2151],
     [2151, 101, 3948, 2151, 2151, 2151, 2151, 2151],
     [2151, 2151, 100, 100, 100, 3947, 3947, 3947],
     [1, 1690, 2151, 2152, 2153, 2151, 2151, 2151],
     [101, 3948, 2151, 2151, 2151, 2151, 2151, 2151],
     [2151, 102, 102, 102, 3949, 3949, 3949, 1],
     [1690, 2151, 2152, 2153, 2151, 2151, 2151, 101],
     [3948, 2151, 2151, 2151, 2151, 2151, 2151, 2151],
     [103, 103, 103, 3950, 3950, 3950, 1, 1690],
     [2151, 2152, 2153, 2151, 2151, 2151, 2151, 101],
     [3948, 2151, 2151, 2151, 2151, 1, 1690, 2151],
     [2152, 2153, 2151, 2151, 2151, 105, 3952, 2151],
     [2151, 2151, 2151, 2151, 2151, 2151, 104, 104],
     [104, 3951, 3951, 3951, 1, 1690, 2151, 2152],
     [2153, 2151, 2151, 2151, 107, 3954, 2151, 2151],
     [2151, 2151, 2151, 2151, 2151, 106, 106, 106],
     [3953, 3953, 3953, 1, 1690, 2151, 2152, 2153],
     [2151, 2151, 2151, 107, 3954, 2151, 2151, 2151],
     [2151, 2151, 2151, 2151, 108, 108, 108, 3955],
     [3955, 3955, 1, 1690, 2151, 2152, 2153, 2151],
     [2151, 2151, 107, 3954, 2151, 2151, 2151, 2151],
     [2151, 2151, 2151, 109, 109, 109, 3956, 3956],
     [3956, 1, 1690, 2151, 2152, 2153, 2151, 2151],
     [2151, 2151, 107, 3954, 2151, 2151, 2151, 2151],
     [1, 1690, 2151, 2152, 2153, 2151, 2151, 2151],
     [111, 3958, 2151, 2151, 2151, 2151, 2151, 2151],
     [2151, 110, 110, 110, 3957, 3957, 3957, 1],
     [1690, 2151, 2152, 2153, 2151, 2151, 2151, 113],
     [3960, 2151, 2151, 2151, 2151, 2151, 2151, 2151],
     [112, 112, 112, 3959, 3959, 3959, 1, 1690],
     [2151, 2152, 2153, 2151, 2151, 2151, 113, 3960],
     [2151, 2151, 2151, 2151, 2151, 2151, 2151, 114],
     [114, 114, 3961, 3961, 3961, 1, 1690, 2151],
     [2152, 2153, 2151, 2151, 2151, 113, 3960, 2151],
     [2151, 2151, 2151, 2151, 2151, 2151, 115, 115],
     [115, 3962, 3962, 3962, 1, 1690, 2151, 2152],
     [2153, 2151, 2151, 2151, 2151, 113, 3960, 2151],
     [2151, 2151, 2151, 1, 1690, 2151, 2152, 2153],
     [2151, 2151, 2151, 117, 3964, 2151, 2151, 2151]]"

definition sup_indicies_37 :: "int list list" where
  "sup_indicies_37 =
    [[2151, 2151, 2151, 2151, 116, 116, 116, 3963],
     [3963, 3963, 1, 1690, 2151, 2152, 2153, 2151],
     [2151, 2151, 119, 3966, 2151, 2151, 2151, 2151],
     [2151, 2151, 2151, 118, 118, 118, 3965, 3965],
     [3965, 1, 1690, 2151, 2152, 2153, 2151, 2151],
     [2151, 119, 3966, 2151, 2151, 2151, 2151, 2151],
     [2151, 2151, 120, 120, 120, 3967, 3967, 3967],
     [1, 1690, 2151, 2152, 2153, 2151, 2151, 2151],
     [119, 3966, 2151, 2151, 2151, 2151, 2151, 2151],
     [2151, 121, 121, 121, 3968, 3968, 3968, 1],
     [1690, 2151, 2152, 2153, 2151, 2151, 2151, 2151],
     [119, 3966, 2151, 2151, 2151, 2151, 1, 1690],
     [2151, 2152, 2153, 2151, 2151, 2151, 123, 3970],
     [2151, 2151, 2151, 2151, 2151, 2151, 2151, 122],
     [122, 122, 3969, 3969, 3969, 1, 1690, 2151],
     [2152, 2153, 2151, 2151, 2151, 125, 3972, 2151],
     [2151, 2151, 2151, 2151, 2151, 2151, 124, 124],
     [124, 3971, 3971, 3971, 1, 1690, 2151, 2152],
     [2153, 2151, 2151, 2151, 125, 3972, 2151, 2151],
     [2151, 2151, 2151, 2151, 2151, 126, 126, 126],
     [3973, 3973, 3973, 1, 1690, 2151, 2152, 2153],
     [2151, 2151, 2151, 125, 3972, 2151, 2151, 2151],
     [2151, 2151, 2151, 2151, 127, 127, 127, 3974],
     [3974, 3974, 1, 1690, 2151, 2152, 2153, 2151],
     [2151, 2151, 2151, 125, 3972, 2151, 2151, 2151],
     [2151, 1, 1690, 2151, 2152, 2153, 2151, 2151],
     [2151, 128, 129, 130, 132, 3975, 3976, 3977],
     [3979, 2151, 2151, 2151, 2151, 2151, 2151, 2151],
     [131, 133, 133, 3978, 3980, 3980, 1, 1690],
     [2151, 2152, 2151, 2151, 2153, 2151, 2151, 2151],
     [2151, 134, 136, 3981, 3983, 2151, 2151, 2151],
     [2151, 2151, 2151, 135, 135, 135, 3982, 3982],
     [3982, 1, 1690, 2151, 2152, 2151, 2153, 2151],
     [2151, 2151, 137, 138, 139, 3984, 3985, 3986],
     [2151, 2151, 2151, 2151, 2151, 140, 3987, 1],
     [1690, 2151, 2152, 2151, 2153, 2151, 2151, 2151],
     [2151, 141, 3988, 2151, 2151, 2151, 2151, 1],
     [1690, 2151, 2152, 2151, 2153, 2151, 2151, 2151],
     [142, 143, 144, 3989, 3990, 3991, 2151, 2151],
     [2151, 2151, 2151, 145, 3992, 1, 1690, 2151],
     [2152, 2151, 2153, 2151, 2151, 2151, 2151, 146],
     [3993, 2151, 2151, 2151, 2151, 1, 1690, 2151],
     [2152, 2151, 2153, 2151, 2151, 2151, 147, 148],
     [149, 3994, 3995, 3996, 2151, 2151, 2151, 2151],
     [2151, 150, 3997, 1, 1690, 2151, 2152, 2153],
     [2151, 2151, 2151, 89, 3998, 2151, 2151, 2151],
     [2151, 1, 1690, 2151, 2152, 2151, 2151, 2151],
     [82, 64, 82, 2153, 61, 3937, 2151, 2151],
     [2151, 2151, 1, 1690, 2151, 2152, 2151, 2153],
     [2151, 2151, 2151, 89, 3998, 2151, 2151, 2151],
     [2151, 2151, 150, 3997, 1, 1690, 2151, 2152],
     [2151, 2153, 2151, 2151, 2151, 89, 3998, 2151],
     [2151, 2151, 2151, 2151, 147, 3994, 1, 1690],
     [2151, 2152, 2151, 2153, 2151, 2151, 2151, 151],
     [89, 3999, 3998, 2151, 2151, 2151, 2151, 2151],
     [150, 147, 3997, 3994, 1, 1690, 2151, 2152],
     [2153, 2151, 2151, 2151, 89, 3998, 2151, 2151],
     [2151, 2151, 2151, 2151, 147, 3994, 1, 1690],
     [2151, 2152, 2151, 2151, 2151, 2153, 2151, 2151],
     [2151, 2151, 146, 3993, 2151, 2151, 2151, 2151],
     [145, 3992, 1, 1690, 2151, 2152, 2151, 2151],
     [2151, 2153, 2151, 2151, 2151, 2151, 146, 3993],
     [2151, 2151, 2151, 2151, 142, 3989, 1, 1690],
     [2151, 2152, 2151, 2151, 2151, 2153, 2151, 2151],
     [2151, 2151, 146, 152, 3993, 4000, 2151, 2151],
     [2151, 2151, 145, 142, 3992, 3989, 1, 1690],
     [2151, 2152, 2151, 2151, 2153, 2151, 2151, 2151],
     [2151, 146, 3993, 2151, 2151, 2151, 2151, 2151],
     [142, 3989, 1, 1690, 2151, 2152, 2151, 2151],
     [2151, 2153, 2151, 2151, 2151, 2151, 141, 3988],
     [2151, 2151, 2151, 2151, 140, 3987, 1, 1690],
     [2151, 2152, 2151, 2151, 2151, 2153, 2151, 2151],
     [2151, 2151, 141, 3988, 2151, 2151, 2151, 2151],
     [137, 3984, 1, 1690, 2151, 2152, 2151, 2151],
     [2151, 2153, 2151, 2151, 2151, 2151, 141, 153],
     [3988, 4001, 2151, 2151, 2151, 2151, 140, 137],
     [3987, 3984, 1, 1690, 2151, 2152, 2151, 2151],
     [2153, 2151, 2151, 2151, 2151, 141, 3988, 2151],
     [2151, 2151, 2151, 2151, 137, 3984, 1, 1690],
     [2151, 2152, 2153, 2151, 2151, 2151, 136, 3983],
     [2151, 2151, 2151, 2151, 2151, 2151, 2151, 154],
     [154, 154, 4002, 4002, 4002, 1, 1690, 2151],
     [2152, 2153, 2151, 2151, 2151, 136, 3983, 2151],
     [2151, 2151, 2151, 2151, 2151, 2151, 155, 155],
     [155, 4003, 4003, 4003, 1, 1690, 2151, 2152],
     [2153, 2151, 2151, 2151, 2151, 136, 3983, 2151],
     [2151, 2151, 2151, 1, 1690, 2151, 2152, 2153],
     [2151, 2151, 2151, 147, 3994, 2151, 2151, 2151],
     [2151, 2151, 2151, 2151, 156, 156, 156, 4004],
     [4004, 4004, 1, 1690, 2151, 2152, 2151, 2153],
     [2151, 2151, 2151, 89, 3998, 2151, 2151, 2151],
     [2151, 2151, 2151, 2151, 157, 157, 157, 4005],
     [4005, 4005, 1, 1690, 2151, 2152, 2151, 2153],
     [2151, 2151, 2151, 89, 3998, 2151, 2151, 2151],
     [2151, 2151, 2151, 2151, 158, 158, 158, 4006],
     [4006, 4006, 1, 1690, 2151, 2152, 2151, 2153],
     [2151, 2151, 2151, 89, 3998, 2151, 2151, 2151],
     [2151, 2151, 2151, 2151, 147, 147, 147, 3994],
     [3994, 3994, 1, 1690, 2151, 2152, 2151, 2151],
     [2153, 2151, 2151, 2151, 2151, 134, 136, 3981],
     [3983, 2151, 2151, 2151, 2151, 2151, 2151, 159],
     [135, 135, 4007, 3982, 3982, 1, 1690, 2151],
     [2152, 2151, 2151, 2153, 2151, 2151, 2151, 2151],
     [134, 136, 3981, 3983, 2151, 2151, 2151, 2151],
     [2151, 2151, 160, 154, 154, 4008, 4002, 4002],
     [1, 1690, 2151, 2152, 2151, 2151, 2153, 2151],
     [2151, 2151, 2151, 134, 136, 3981, 3983, 2151],
     [2151, 2151, 2151, 2151, 2151, 155, 155, 155],
     [4003, 4003, 4003, 1, 1690, 2151, 2152, 2151],
     [2151, 2153, 2151, 2151, 2151, 2151, 134, 161],
     [136, 3981, 4009, 3983, 2151, 2151, 2151, 2151],
     [2151, 2151, 159, 162, 135, 135, 4007, 4010],
     [3982, 3982, 1, 1690, 2151, 2152, 2151, 2151],
     [2153, 2151, 2151, 2151, 2151, 134, 136, 3981],
     [3983, 2151, 2151, 2151, 2151, 2151, 2151, 160],
     [154, 154, 154, 4008, 4002, 4002, 4002, 1],
     [1690, 2151, 2152, 2151, 2151, 2153, 2151, 2151],
     [2151, 2151, 134, 136, 3981, 3983, 2151, 2151],
     [2151, 2151, 2151, 2151, 154, 154, 154, 4002],
     [4002, 4002, 1, 1690, 2151, 2152, 2151, 2151],
     [2153, 2151, 2151, 2151, 2151, 134, 136, 3981],
     [3983, 2151, 2151, 2151, 2151, 2151, 2151, 162],
     [135, 135, 4010, 3982, 3982, 1, 1690, 2151],
     [2152, 2151, 2153, 2151, 2151, 2151, 89, 3998],
     [2151, 2151, 2151, 2151, 2151, 2151, 2151, 156],
     [156, 156, 4004, 4004, 4004, 1, 1690, 2151],
     [2152, 2153, 2151, 2151, 2151, 136, 3983, 2151],
     [2151, 2151, 2151, 2151, 2151, 2151, 135, 135],
     [135, 3982, 3982, 3982, 1, 1690, 2151, 2152],
     [2151, 2153, 2151, 2151, 2151, 163, 164, 165],
     [89, 4011, 4012, 4013, 3998, 2151, 2151, 2151],
     [2151, 2151, 2151, 2151, 166, 167, 167, 4014],
     [4015, 4015, 1, 1690, 2151, 2152, 2151, 2151],
     [2153, 2151, 2151, 2151, 2151, 134, 169, 89],
     [3981, 4017, 3998, 2151, 2151, 2151, 2151, 2151],
     [2151, 168, 168, 168, 4016, 4016, 4016, 1],
     [1690, 2151, 2152, 2153, 2151, 2151, 2151, 169],
     [89, 4017, 3998, 2151, 2151, 2151, 2151, 2151],
     [2151, 2151, 170, 170, 170, 4018, 4018, 4018],
     [1, 1690, 2151, 2152, 2153, 2151, 2151, 2151],
     [169, 89, 4017, 3998, 2151, 2151, 2151, 2151],
     [2151, 2151, 2151, 171, 171, 171, 4019, 4019],
     [4019, 1, 1690, 2151, 2152, 2153, 2151, 2151],
     [2151, 2151, 169, 89, 4017, 3998, 2151, 2151],
     [2151, 2151, 1, 1690, 2151, 2152, 2151, 2153],
     [2151, 2151, 2151, 2151, 2151, 2151, 2151, 2151],
     [2151, 2151, 156, 156, 156, 4004, 4004, 4004],
     [1, 1690, 2151, 2152, 2151, 2151, 2153, 2151],
     [2151, 2151, 2151, 134, 169, 89, 3981, 4017],
     [3998, 2151, 2151, 2151, 2151, 2151, 2151, 172]]"

definition sup_indicies_38 :: "int list list" where
  "sup_indicies_38 =
    [[168, 168, 4020, 4016, 4016, 1, 1690, 2151],
     [2152, 2151, 2151, 2153, 2151, 2151, 2151, 2151],
     [134, 169, 89, 3981, 4017, 3998, 2151, 2151],
     [2151, 2151, 2151, 2151, 173, 170, 170, 4021],
     [4018, 4018, 1, 1690, 2151, 2152, 2151, 2151],
     [2153, 2151, 2151, 2151, 2151, 134, 169, 89],
     [3981, 4017, 3998, 2151, 2151, 2151, 2151, 2151],
     [2151, 171, 171, 171, 4019, 4019, 4019, 1],
     [1690, 2151, 2152, 2151, 2151, 2153, 2151, 2151],
     [2151, 2151, 134, 174, 169, 89, 3981, 4022],
     [4017, 3998, 2151, 2151, 2151, 2151, 2151, 2151],
     [172, 175, 168, 168, 4020, 4023, 4016, 4016],
     [1, 1690, 2151, 2152, 2151, 2151, 2153, 2151],
     [2151, 2151, 2151, 134, 169, 89, 3981, 4017],
     [3998, 2151, 2151, 2151, 2151, 2151, 2151, 173],
     [170, 170, 170, 4021, 4018, 4018, 4018, 1],
     [1690, 2151, 2152, 2151, 2151, 2153, 2151, 2151],
     [2151, 2151, 134, 169, 89, 3981, 4017, 3998],
     [2151, 2151, 2151, 2151, 2151, 2151, 170, 170],
     [170, 4018, 4018, 4018, 1, 1690, 2151, 2152],
     [2151, 2151, 2153, 2151, 2151, 2151, 2151, 134],
     [169, 89, 3981, 4017, 3998, 2151, 2151, 2151],
     [2151, 2151, 2151, 175, 168, 168, 4023, 4016],
     [4016, 1, 1690, 2151, 2152, 2153, 2151, 2151],
     [2151, 169, 89, 4017, 3998, 2151, 2151, 2151],
     [2151, 2151, 2151, 2151, 168, 168, 168, 4016],
     [4016, 4016, 1, 1690, 2151, 2152, 2151, 2153],
     [2151, 2151, 2151, 176, 177, 178, 89, 4024],
     [4025, 4026, 3998, 2151, 2151, 2151, 2151, 2151],
     [2151, 2151, 179, 180, 180, 4027, 4028, 4028],
     [1, 1690, 2151, 2152, 2151, 2151, 2153, 2151],
     [2151, 2151, 2151, 134, 182, 89, 3981, 4030],
     [3998, 2151, 2151, 2151, 2151, 2151, 2151, 181],
     [181, 181, 4029, 4029, 4029, 1, 1690, 2151],
     [2152, 2153, 2151, 2151, 2151, 182, 89, 4030],
     [3998, 2151, 2151, 2151, 2151, 2151, 2151, 2151],
     [183, 183, 183, 4031, 4031, 4031, 1, 1690],
     [2151, 2152, 2153, 2151, 2151, 2151, 182, 89],
     [4030, 3998, 2151, 2151, 2151, 2151, 2151, 2151],
     [2151, 184, 184, 184, 4032, 4032, 4032, 1],
     [1690, 2151, 2152, 2153, 2151, 2151, 2151, 2151],
     [182, 89, 4030, 3998, 2151, 2151, 2151, 2151],
     [1, 1690, 2151, 2152, 2151, 2153, 2151, 2151],
     [2151, 163, 164, 165, 4011, 4012, 4013, 2151],
     [2151, 2151, 2151, 2151, 2151, 2151, 166, 167],
     [167, 4014, 4015, 4015, 1, 1690, 2151, 2152],
     [2151, 2151, 2153, 2151, 2151, 2151, 2151, 134],
     [182, 89, 3981, 4030, 3998, 2151, 2151, 2151],
     [2151, 2151, 2151, 185, 181, 181, 4033, 4029],
     [4029, 1, 1690, 2151, 2152, 2151, 2151, 2153],
     [2151, 2151, 2151, 2151, 134, 182, 89, 3981],
     [4030, 3998, 2151, 2151, 2151, 2151, 2151, 2151],
     [186, 183, 183, 4034, 4031, 4031, 1, 1690],
     [2151, 2152, 2151, 2151, 2153, 2151, 2151, 2151],
     [2151, 134, 182, 89, 3981, 4030, 3998, 2151],
     [2151, 2151, 2151, 2151, 2151, 184, 184, 184],
     [4032, 4032, 4032, 1, 1690, 2151, 2152, 2151],
     [2151, 2153, 2151, 2151, 2151, 2151, 134, 187],
     [182, 89, 3981, 4035, 4030, 3998, 2151, 2151],
     [2151, 2151, 2151, 2151, 185, 188, 181, 181],
     [4033, 4036, 4029, 4029, 1, 1690, 2151, 2152],
     [2151, 2151, 2153, 2151, 2151, 2151, 2151, 134],
     [182, 89, 3981, 4030, 3998, 2151, 2151, 2151],
     [2151, 2151, 2151, 186, 183, 183, 183, 4034],
     [4031, 4031, 4031, 1, 1690, 2151, 2152, 2151],
     [2151, 2153, 2151, 2151, 2151, 2151, 134, 182],
     [89, 3981, 4030, 3998, 2151, 2151, 2151, 2151],
     [2151, 2151, 183, 183, 183, 4031, 4031, 4031],
     [1, 1690, 2151, 2152, 2151, 2151, 2153, 2151],
     [2151, 2151, 2151, 134, 182, 89, 3981, 4030],
     [3998, 2151, 2151, 2151, 2151, 2151, 2151, 188],
     [181, 181, 4036, 4029, 4029, 1, 1690, 2151],
     [2152, 2153, 2151, 2151, 2151, 182, 89, 4030],
     [3998, 2151, 2151, 2151, 2151, 2151, 2151, 2151],
     [181, 181, 181, 4029, 4029, 4029, 1, 1690],
     [2151, 2152, 2151, 2153, 2151, 2151, 2151, 189],
     [190, 191, 89, 4037, 4038, 4039, 3998, 2151],
     [2151, 2151, 2151, 2151, 2151, 2151, 192, 193],
     [193, 4040, 4041, 4041, 1, 1690, 2151, 2152],
     [2151, 2151, 2153, 2151, 2151, 2151, 2151, 134],
     [195, 89, 3981, 4043, 3998, 2151, 2151, 2151],
     [2151, 2151, 2151, 194, 194, 194, 4042, 4042],
     [4042, 1, 1690, 2151, 2152, 2153, 2151, 2151],
     [2151, 195, 89, 4043, 3998, 2151, 2151, 2151],
     [2151, 2151, 2151, 2151, 196, 196, 196, 4044],
     [4044, 4044, 1, 1690, 2151, 2152, 2153, 2151],
     [2151, 2151, 195, 89, 4043, 3998, 2151, 2151],
     [2151, 2151, 2151, 2151, 2151, 197, 197, 197],
     [4045, 4045, 4045, 1, 1690, 2151, 2152, 2153],
     [2151, 2151, 2151, 2151, 195, 89, 4043, 3998],
     [2151, 2151, 2151, 2151, 1, 1690, 2151, 2152],
     [2151, 2153, 2151, 2151, 2151, 176, 177, 178],
     [4024, 4025, 4026, 2151, 2151, 2151, 2151, 2151],
     [2151, 2151, 179, 180, 180, 4027, 4028, 4028],
     [1, 1690, 2151, 2152, 2151, 2151, 2153, 2151],
     [2151, 2151, 2151, 134, 195, 89, 3981, 4043],
     [3998, 2151, 2151, 2151, 2151, 2151, 2151, 198],
     [194, 194, 4046, 4042, 4042, 1, 1690, 2151],
     [2152, 2151, 2151, 2153, 2151, 2151, 2151, 2151],
     [134, 195, 89, 3981, 4043, 3998, 2151, 2151],
     [2151, 2151, 2151, 2151, 199, 196, 196, 4047],
     [4044, 4044, 1, 1690, 2151, 2152, 2151, 2151],
     [2153, 2151, 2151, 2151, 2151, 134, 195, 89],
     [3981, 4043, 3998, 2151, 2151, 2151, 2151, 2151],
     [2151, 197, 197, 197, 4045, 4045, 4045, 1],
     [1690, 2151, 2152, 2151, 2151, 2153, 2151, 2151],
     [2151, 2151, 134, 200, 195, 89, 3981, 4048],
     [4043, 3998, 2151, 2151, 2151, 2151, 2151, 2151],
     [198, 201, 194, 194, 4046, 4049, 4042, 4042],
     [1, 1690, 2151, 2152, 2151, 2151, 2153, 2151],
     [2151, 2151, 2151, 134, 195, 89, 3981, 4043],
     [3998, 2151, 2151, 2151, 2151, 2151, 2151, 199],
     [196, 196, 196, 4047, 4044, 4044, 4044, 1],
     [1690, 2151, 2152, 2151, 2151, 2153, 2151, 2151],
     [2151, 2151, 134, 195, 89, 3981, 4043, 3998],
     [2151, 2151, 2151, 2151, 2151, 2151, 196, 196],
     [196, 4044, 4044, 4044, 1, 1690, 2151, 2152],
     [2151, 2151, 2153, 2151, 2151, 2151, 2151, 134],
     [195, 89, 3981, 4043, 3998, 2151, 2151, 2151],
     [2151, 2151, 2151, 201, 194, 194, 4049, 4042],
     [4042, 1, 1690, 2151, 2152, 2153, 2151, 2151],
     [2151, 195, 89, 4043, 3998, 2151, 2151, 2151],
     [2151, 2151, 2151, 2151, 194, 194, 194, 4042],
     [4042, 4042, 1, 1690, 2151, 2152, 2151, 2153],
     [2151, 2151, 2151, 202, 203, 204, 89, 4050],
     [4051, 4052, 3998, 2151, 2151, 2151, 2151, 2151],
     [2151, 2151, 205, 206, 206, 4053, 4054, 4054],
     [1, 1690, 2151, 2152, 2151, 2151, 2153, 2151],
     [2151, 2151, 2151, 134, 208, 89, 3981, 4056],
     [3998, 2151, 2151, 2151, 2151, 2151, 2151, 207],
     [207, 207, 4055, 4055, 4055, 1, 1690, 2151],
     [2152, 2153, 2151, 2151, 2151, 208, 89, 4056],
     [3998, 2151, 2151, 2151, 2151, 2151, 2151, 2151],
     [209, 209, 209, 4057, 4057, 4057, 1, 1690],
     [2151, 2152, 2153, 2151, 2151, 2151, 208, 89],
     [4056, 3998, 2151, 2151, 2151, 2151, 2151, 2151],
     [2151, 210, 210, 210, 4058, 4058, 4058, 1],
     [1690, 2151, 2152, 2153, 2151, 2151, 2151, 2151],
     [208, 89, 4056, 3998, 2151, 2151, 2151, 2151],
     [1, 1690, 2151, 2152, 2151, 2153, 2151, 2151],
     [2151, 189, 190, 191, 4037, 4038, 4039, 2151],
     [2151, 2151, 2151, 2151, 2151, 2151, 192, 193],
     [193, 4040, 4041, 4041, 1, 1690, 2151, 2152],
     [2151, 2151, 2153, 2151, 2151, 2151, 2151, 134],
     [208, 89, 3981, 4056, 3998, 2151, 2151, 2151],
     [2151, 2151, 2151, 211, 207, 207, 4059, 4055],
     [4055, 1, 1690, 2151, 2152, 2151, 2151, 2153],
     [2151, 2151, 2151, 2151, 134, 208, 89, 3981],
     [4056, 3998, 2151, 2151, 2151, 2151, 2151, 2151],
     [212, 209, 209, 4060, 4057, 4057, 1, 1690]]"

definition sup_indicies_39 :: "int list list" where
  "sup_indicies_39 =
    [[2151, 2152, 2151, 2151, 2153, 2151, 2151, 2151],
     [2151, 134, 208, 89, 3981, 4056, 3998, 2151],
     [2151, 2151, 2151, 2151, 2151, 210, 210, 210],
     [4058, 4058, 4058, 1, 1690, 2151, 2152, 2151],
     [2151, 2153, 2151, 2151, 2151, 2151, 134, 213],
     [208, 89, 3981, 4061, 4056, 3998, 2151, 2151],
     [2151, 2151, 2151, 2151, 211, 214, 207, 207],
     [4059, 4062, 4055, 4055, 1, 1690, 2151, 2152],
     [2151, 2151, 2153, 2151, 2151, 2151, 2151, 134],
     [208, 89, 3981, 4056, 3998, 2151, 2151, 2151],
     [2151, 2151, 2151, 212, 209, 209, 209, 4060],
     [4057, 4057, 4057, 1, 1690, 2151, 2152, 2151],
     [2151, 2153, 2151, 2151, 2151, 2151, 134, 208],
     [89, 3981, 4056, 3998, 2151, 2151, 2151, 2151],
     [2151, 2151, 209, 209, 209, 4057, 4057, 4057],
     [1, 1690, 2151, 2152, 2151, 2151, 2153, 2151],
     [2151, 2151, 2151, 134, 208, 89, 3981, 4056],
     [3998, 2151, 2151, 2151, 2151, 2151, 2151, 214],
     [207, 207, 4062, 4055, 4055, 1, 1690, 2151],
     [2152, 2153, 2151, 2151, 2151, 208, 89, 4056],
     [3998, 2151, 2151, 2151, 2151, 2151, 2151, 2151],
     [207, 207, 207, 4055, 4055, 4055, 1, 1690],
     [2151, 2152, 2151, 2153, 2151, 2151, 2151, 215],
     [216, 217, 89, 4063, 4064, 4065, 3998, 2151],
     [2151, 2151, 2151, 2151, 2151, 2151, 218, 219],
     [219, 4066, 4067, 4067, 1, 1690, 2151, 2152],
     [2151, 2151, 2153, 2151, 2151, 2151, 2151, 134],
     [221, 89, 3981, 4069, 3998, 2151, 2151, 2151],
     [2151, 2151, 2151, 220, 220, 220, 4068, 4068],
     [4068, 1, 1690, 2151, 2152, 2153, 2151, 2151],
     [2151, 221, 89, 4069, 3998, 2151, 2151, 2151],
     [2151, 2151, 2151, 2151, 222, 222, 222, 4070],
     [4070, 4070, 1, 1690, 2151, 2152, 2153, 2151],
     [2151, 2151, 221, 89, 4069, 3998, 2151, 2151],
     [2151, 2151, 2151, 2151, 2151, 223, 223, 223],
     [4071, 4071, 4071, 1, 1690, 2151, 2152, 2153],
     [2151, 2151, 2151, 2151, 221, 89, 4069, 3998],
     [2151, 2151, 2151, 2151, 1, 1690, 2151, 2152],
     [2151, 2153, 2151, 2151, 2151, 202, 203, 204],
     [4050, 4051, 4052, 2151, 2151, 2151, 2151, 2151],
     [2151, 2151, 205, 206, 206, 4053, 4054, 4054],
     [1, 1690, 2151, 2152, 2151, 2151, 2153, 2151],
     [2151, 2151, 2151, 134, 221, 89, 3981, 4069],
     [3998, 2151, 2151, 2151, 2151, 2151, 2151, 224],
     [220, 220, 4072, 4068, 4068, 1, 1690, 2151],
     [2152, 2151, 2151, 2153, 2151, 2151, 2151, 2151],
     [134, 221, 89, 3981, 4069, 3998, 2151, 2151],
     [2151, 2151, 2151, 2151, 225, 222, 222, 4073],
     [4070, 4070, 1, 1690, 2151, 2152, 2151, 2151],
     [2153, 2151, 2151, 2151, 2151, 134, 221, 89],
     [3981, 4069, 3998, 2151, 2151, 2151, 2151, 2151],
     [2151, 223, 223, 223, 4071, 4071, 4071, 1],
     [1690, 2151, 2152, 2151, 2151, 2153, 2151, 2151],
     [2151, 2151, 134, 226, 221, 89, 3981, 4074],
     [4069, 3998, 2151, 2151, 2151, 2151, 2151, 2151],
     [224, 227, 220, 220, 4072, 4075, 4068, 4068],
     [1, 1690, 2151, 2152, 2151, 2151, 2153, 2151],
     [2151, 2151, 2151, 134, 221, 89, 3981, 4069],
     [3998, 2151, 2151, 2151, 2151, 2151, 2151, 225],
     [222, 222, 222, 4073, 4070, 4070, 4070, 1],
     [1690, 2151, 2152, 2151, 2151, 2153, 2151, 2151],
     [2151, 2151, 134, 221, 89, 3981, 4069, 3998],
     [2151, 2151, 2151, 2151, 2151, 2151, 222, 222],
     [222, 4070, 4070, 4070, 1, 1690, 2151, 2152],
     [2151, 2151, 2153, 2151, 2151, 2151, 2151, 134],
     [221, 89, 3981, 4069, 3998, 2151, 2151, 2151],
     [2151, 2151, 2151, 227, 220, 220, 4075, 4068],
     [4068, 1, 1690, 2151, 2152, 2153, 2151, 2151],
     [2151, 221, 89, 4069, 3998, 2151, 2151, 2151],
     [2151, 2151, 2151, 2151, 220, 220, 220, 4068],
     [4068, 4068, 1, 1690, 2151, 2152, 2153, 2151],
     [2151, 2151, 2151, 228, 4076, 2151, 2151, 2151],
     [2151, 1, 1690, 2151, 2152, 2151, 2153, 2151],
     [2151, 2151, 229, 230, 231, 89, 4077, 4078],
     [4079, 3998, 2151, 2151, 2151, 2151, 2151, 2151],
     [2151, 232, 233, 233, 4080, 4081, 4081, 1],
     [1690, 2151, 2152, 2151, 2151, 2153, 2151, 2151],
     [2151, 2151, 134, 235, 89, 3981, 4083, 3998],
     [2151, 2151, 2151, 2151, 2151, 2151, 234, 234],
     [234, 4082, 4082, 4082, 1, 1690, 2151, 2152],
     [2153, 2151, 2151, 2151, 235, 89, 4083, 3998],
     [2151, 2151, 2151, 2151, 2151, 2151, 2151, 236],
     [236, 236, 4084, 4084, 4084, 1, 1690, 2151],
     [2152, 2153, 2151, 2151, 2151, 235, 89, 4083],
     [3998, 2151, 2151, 2151, 2151, 2151, 2151, 2151],
     [237, 237, 237, 4085, 4085, 4085, 1, 1690],
     [2151, 2152, 2153, 2151, 2151, 2151, 2151, 235],
     [89, 4083, 3998, 2151, 2151, 2151, 2151, 1],
     [1690, 2151, 2152, 2151, 2153, 2151, 2151, 2151],
     [215, 216, 217, 4063, 4064, 4065, 2151, 2151],
     [2151, 2151, 2151, 2151, 2151, 218, 219, 219],
     [4066, 4067, 4067, 1, 1690, 2151, 2152, 2151],
     [2151, 2153, 2151, 2151, 2151, 2151, 134, 235],
     [89, 3981, 4083, 3998, 2151, 2151, 2151, 2151],
     [2151, 2151, 238, 234, 234, 4086, 4082, 4082],
     [1, 1690, 2151, 2152, 2151, 2151, 2153, 2151],
     [2151, 2151, 2151, 134, 235, 89, 3981, 4083],
     [3998, 2151, 2151, 2151, 2151, 2151, 2151, 239],
     [236, 236, 4087, 4084, 4084, 1, 1690, 2151],
     [2152, 2151, 2151, 2153, 2151, 2151, 2151, 2151],
     [134, 235, 89, 3981, 4083, 3998, 2151, 2151],
     [2151, 2151, 2151, 2151, 237, 237, 237, 4085],
     [4085, 4085, 1, 1690, 2151, 2152, 2151, 2151],
     [2153, 2151, 2151, 2151, 2151, 134, 240, 235],
     [89, 3981, 4088, 4083, 3998, 2151, 2151, 2151],
     [2151, 2151, 2151, 238, 241, 234, 234, 4086],
     [4089, 4082, 4082, 1, 1690, 2151, 2152, 2151],
     [2151, 2153, 2151, 2151, 2151, 2151, 134, 235],
     [89, 3981, 4083, 3998, 2151, 2151, 2151, 2151],
     [2151, 2151, 239, 236, 236, 236, 4087, 4084],
     [4084, 4084, 1, 1690, 2151, 2152, 2151, 2151],
     [2153, 2151, 2151, 2151, 2151, 134, 235, 89],
     [3981, 4083, 3998, 2151, 2151, 2151, 2151, 2151],
     [2151, 236, 236, 236, 4084, 4084, 4084, 1],
     [1690, 2151, 2152, 2151, 2151, 2153, 2151, 2151],
     [2151, 2151, 134, 235, 89, 3981, 4083, 3998],
     [2151, 2151, 2151, 2151, 2151, 2151, 241, 234],
     [234, 4089, 4082, 4082, 1, 1690, 2151, 2152],
     [2153, 2151, 2151, 2151, 235, 89, 4083, 3998],
     [2151, 2151, 2151, 2151, 2151, 2151, 2151, 234],
     [234, 234, 4082, 4082, 4082, 1, 1680, 71],
     [72, 71, 68, 68, 68, 68, 68, 2146],
     [2147, 2148, 2155, 2155, 68, 61, 73, 3929],
     [3930, 3931, 4090, 4090, 68, 68, 2146, 2146],
     [2146, 68, 68, 68, 3929, 3929, 3929, 1],
     [1680, 71, 72, 71, 68, 68, 68, 68],
     [68, 2146, 2147, 2148, 2156, 2156, 68, 61],
     [73, 3929, 3930, 3931, 4091, 4091, 68, 68],
     [2146, 2146, 2146, 68, 68, 68, 3929, 3929],
     [3929, 1, 1680, 71, 72, 71, 68, 68],
     [68, 68, 68, 2146, 2147, 2148, 2157, 2157],
     [68, 61, 73, 3929, 3930, 3931, 4092, 4092],
     [68, 68, 2146, 2146, 2146, 68, 68, 68],
     [3929, 3929, 3929, 1, 1680, 71, 72, 71],
     [68, 68, 68, 68, 68, 2146, 2147, 2148],
     [2158, 2158, 68, 61, 73, 3929, 3930, 3931],
     [4093, 4093, 68, 68, 2146, 2146, 2146, 68],
     [68, 68, 3929, 3929, 3929, 1, 1680, 71],
     [72, 71, 68, 68, 68, 68, 68, 2159],
     [2147, 2148, 68, 61, 73, 4094, 3930, 3931],
     [68, 68, 2146, 2146, 2146, 68, 68, 68],
     [3929, 3929, 3929, 1, 1680, 71, 72, 71],
     [68, 68, 68, 68, 68, 2146, 2147, 2148],
     [2160, 2160, 68, 61, 73, 3929, 3930, 3931],
     [4095, 4095, 68, 68, 2146, 2146, 2146, 68],
     [68, 68, 3929, 3929, 3929, 1, 1680, 71],
     [72, 71, 68, 68, 68, 68, 68, 2146],
     [2147, 2148, 2161, 2161, 68, 61, 73, 3929],
     [3930, 3931, 4096, 4096, 68, 68, 2146, 2146],
     [2146, 68, 68, 68, 3929, 3929, 3929, 1]]"

definition sup_indicies_40 :: "int list list" where
  "sup_indicies_40 =
    [[1680, 71, 72, 71, 68, 68, 68, 68],
     [68, 2146, 2147, 2148, 2162, 2162, 68, 61],
     [73, 3929, 3930, 3931, 4097, 4097, 68, 68],
     [2146, 2146, 2146, 68, 68, 68, 3929, 3929],
     [3929, 1, 1680, 71, 72, 71, 68, 68],
     [68, 68, 68, 2146, 2147, 2148, 2163, 2163],
     [68, 61, 73, 3929, 3930, 3931, 4098, 4098],
     [68, 68, 2146, 2146, 2146, 68, 68, 68],
     [3929, 3929, 3929, 1, 1680, 71, 72, 71],
     [68, 68, 68, 68, 68, 2146, 2147, 2148],
     [2164, 2164, 68, 61, 73, 3929, 3930, 3931],
     [4099, 4099, 68, 68, 2146, 2146, 2146, 68],
     [68, 68, 3929, 3929, 3929, 1, 1680, 71],
     [72, 71, 68, 68, 68, 68, 68, 2146],
     [2147, 2148, 2165, 2165, 68, 61, 73, 3929],
     [3930, 3931, 4100, 4100, 68, 68, 2146, 2146],
     [2146, 68, 68, 68, 3929, 3929, 3929, 1],
     [1680, 71, 72, 71, 68, 68, 68, 68],
     [68, 2146, 2147, 2148, 2166, 2166, 68, 61],
     [73, 3929, 3930, 3931, 4101, 4101, 68, 68],
     [2146, 2146, 2146, 68, 68, 68, 3929, 3929],
     [3929, 1, 1680, 71, 72, 71, 68, 68],
     [68, 68, 68, 2146, 2147, 2167, 68, 61],
     [73, 3929, 3930, 4102, 68, 68, 2146, 2146],
     [2146, 68, 68, 68, 3929, 3929, 3929, 1],
     [2149, 2149, 2149, 2149, 2149, 73, 76, 73],
     [78, 77, 2149, 2150, 2149, 2149, 2168, 2149],
     [2149, 2149, 77, 77, 77, 79, 77, 77],
     [3932, 3933, 3932, 3932, 4103, 3934, 3932, 3932],
     [2149, 2149, 2169, 2170, 2170, 77, 77, 77],
     [77, 77, 3932, 4104, 4105, 4105, 1, 1690],
     [2151, 2151, 2151, 2151, 2151, 2151, 82, 64],
     [82, 77, 2151, 2152, 2151, 2153, 2151, 2151],
     [77, 77, 77, 61, 77, 77, 3935, 3936],
     [3935, 3937, 3935, 3935, 2171, 2151, 2171, 2172],
     [2151, 2151, 77, 77, 77, 77, 77, 3935],
     [4106, 4107, 3935, 3935, 1, 2173, 2151, 2151],
     [2151, 2151, 2151, 2151, 82, 64, 82, 77],
     [2151, 2152, 2151, 2174, 2151, 2151, 77, 77],
     [77, 61, 77, 77, 3935, 3936, 3935, 4108],
     [3935, 3935, 2172, 2151, 2172, 2172, 2151, 2151],
     [77, 77, 77, 77, 77, 3935, 4107, 4107],
     [3935, 3935, 1, 1690, 2151, 2151, 2151, 2151],
     [2151, 2151, 82, 64, 82, 77, 2151, 2152],
     [2151, 2175, 2176, 2153, 2175, 2151, 77, 77],
     [77, 61, 77, 77, 3935, 3936, 3935, 4109],
     [4110, 3937, 4109, 3935, 2151, 2151, 2177, 2177],
     [2177, 77, 77, 77, 77, 77, 3935, 4111],
     [4111, 4111, 1, 1690, 2151, 2151, 2151, 2151],
     [2151, 2151, 82, 64, 82, 77, 2151, 2152],
     [2151, 2175, 2151, 2153, 2175, 2151, 77, 77],
     [77, 61, 77, 77, 3935, 3936, 3935, 4109],
     [3935, 3937, 4109, 3935, 2151, 2151, 2177, 2177],
     [2177, 77, 77, 77, 77, 77, 3935, 4111],
     [4111, 4111, 1, 1690, 2151, 2151, 2151, 2151],
     [2151, 2151, 82, 64, 82, 77, 2151, 2152],
     [2151, 2153, 2151, 2151, 77, 77, 77, 61],
     [77, 77, 3935, 3936, 3935, 3937, 3935, 3935],
     [2151, 2151, 2151, 2177, 2178, 2178, 77, 77],
     [77, 77, 77, 3935, 3935, 4111, 4112, 4112],
     [1, 2173, 2151, 2151, 2151, 2151, 2151, 2151],
     [82, 64, 82, 77, 2151, 2152, 2151, 2179],
     [2180, 2174, 2179, 2151, 77, 77, 77, 61],
     [77, 77, 3935, 3936, 3935, 4113, 4114, 4108],
     [4113, 3935, 2151, 2151, 2178, 2178, 2178, 77],
     [77, 77, 77, 77, 3935, 4112, 4112, 4112],
     [1, 1690, 2151, 2151, 2151, 2151, 2151, 2151],
     [82, 64, 82, 77, 2151, 2152, 2151, 2179],
     [2151, 2153, 2179, 2151, 77, 77, 77, 61],
     [77, 77, 3935, 3936, 3935, 4113, 3935, 3937],
     [4113, 3935, 2151, 2151, 2178, 2178, 2178, 77],
     [77, 77, 77, 77, 3935, 4112, 4112, 4112],
     [1, 2173, 2151, 2151, 2151, 2151, 2151, 2151],
     [82, 64, 82, 77, 2151, 2152, 2151, 2174],
     [2151, 2151, 77, 77, 77, 61, 77, 77],
     [3935, 3936, 3935, 4108, 3935, 3935, 2151, 2151],
     [2151, 2177, 2178, 2178, 77, 77, 77, 77],
     [77, 3935, 3935, 4111, 4112, 4112, 1, 2142],
     [2142, 2891, 2891, 3925, 3925, 2181, 2181, 2142],
     [2142, 2142, 2893, 2893, 2891, 2891, 2891, 4115],
     [4115, 3925, 3925, 3925, 1, 2182, 2182, 2183],
     [2894, 2894, 2895, 4116, 4116, 4117, 1, 2141],
     [2889, 2890, 2889, 2143, 2892, 3926, 2183, 2183],
     [2183, 2895, 2895, 2895, 4117, 4117, 4117, 1],
     [1, 0]]"

definition sup_indicies :: "int list" where
  "sup_indicies =
     concat sup_indicies_1 @ concat sup_indicies_2 @ concat sup_indicies_3 @
     concat sup_indicies_4 @ concat sup_indicies_5 @ concat sup_indicies_6 @
     concat sup_indicies_7 @ concat sup_indicies_8 @ concat sup_indicies_9 @
     concat sup_indicies_10 @ concat sup_indicies_11 @ concat sup_indicies_12 @
     concat sup_indicies_13 @ concat sup_indicies_14 @ concat sup_indicies_15 @
     concat sup_indicies_16 @ concat sup_indicies_17 @ concat sup_indicies_18 @
     concat sup_indicies_19 @ concat sup_indicies_20 @ concat sup_indicies_21 @
     concat sup_indicies_22 @ concat sup_indicies_23 @ concat sup_indicies_24 @
     concat sup_indicies_25 @ concat sup_indicies_26 @ concat sup_indicies_27 @
     concat sup_indicies_28 @ concat sup_indicies_29 @ concat sup_indicies_30 @
     concat sup_indicies_31 @ concat sup_indicies_32 @ concat sup_indicies_33 @
     concat sup_indicies_34 @ concat sup_indicies_35 @ concat sup_indicies_36 @
     concat sup_indicies_37 @ concat sup_indicies_38 @ concat sup_indicies_39 @
     concat sup_indicies_40"

text \<open>Every place has a transition.\<close>

definition sup_place :: "int \<Rightarrow> int \<Rightarrow> bool" where
  "sup_place i t \<longleftrightarrow> 0 \<le> t \<and> t < 4118"

lemma sup_indicies_1_place: "all1 sup_place 0 1200 (concat sup_indicies_1)"
  by (simp only: sup_indicies_1_def sup_place_def row_arith)

lemma sup_indicies_2_place: "all1 sup_place 1200 2400 (concat sup_indicies_2)"
  by (simp only: sup_indicies_2_def sup_place_def row_arith)

lemma sup_indicies_3_place: "all1 sup_place 2400 3600 (concat sup_indicies_3)"
  by (simp only: sup_indicies_3_def sup_place_def row_arith)

lemma sup_indicies_4_place: "all1 sup_place 3600 4800 (concat sup_indicies_4)"
  by (simp only: sup_indicies_4_def sup_place_def row_arith)

lemma sup_indicies_5_place: "all1 sup_place 4800 6000 (concat sup_indicies_5)"
  by (simp only: sup_indicies_5_def sup_place_def row_arith)

lemma sup_indicies_6_place: "all1 sup_place 6000 7200 (concat sup_indicies_6)"
  by (simp only: sup_indicies_6_def sup_place_def row_arith)

lemma sup_indicies_7_place: "all1 sup_place 7200 8400 (concat sup_indicies_7)"
  by (simp only: sup_indicies_7_def sup_place_def row_arith)

lemma sup_indicies_8_place: "all1 sup_place 8400 9600 (concat sup_indicies_8)"
  by (simp only: sup_indicies_8_def sup_place_def row_arith)

lemma sup_indicies_9_place: "all1 sup_place 9600 10800 (concat sup_indicies_9)"
  by (simp only: sup_indicies_9_def sup_place_def row_arith)

lemma sup_indicies_10_place: "all1 sup_place 10800 12000 (concat sup_indicies_10)"
  by (simp only: sup_indicies_10_def sup_place_def row_arith)

lemma sup_indicies_11_place: "all1 sup_place 12000 13200 (concat sup_indicies_11)"
  by (simp only: sup_indicies_11_def sup_place_def row_arith)

lemma sup_indicies_12_place: "all1 sup_place 13200 14400 (concat sup_indicies_12)"
  by (simp only: sup_indicies_12_def sup_place_def row_arith)

lemma sup_indicies_13_place: "all1 sup_place 14400 15600 (concat sup_indicies_13)"
  by (simp only: sup_indicies_13_def sup_place_def row_arith)

lemma sup_indicies_14_place: "all1 sup_place 15600 16800 (concat sup_indicies_14)"
  by (simp only: sup_indicies_14_def sup_place_def row_arith)

lemma sup_indicies_15_place: "all1 sup_place 16800 18000 (concat sup_indicies_15)"
  by (simp only: sup_indicies_15_def sup_place_def row_arith)

lemma sup_indicies_16_place: "all1 sup_place 18000 19200 (concat sup_indicies_16)"
  by (simp only: sup_indicies_16_def sup_place_def row_arith)

lemma sup_indicies_17_place: "all1 sup_place 19200 20400 (concat sup_indicies_17)"
  by (simp only: sup_indicies_17_def sup_place_def row_arith)

lemma sup_indicies_18_place: "all1 sup_place 20400 21600 (concat sup_indicies_18)"
  by (simp only: sup_indicies_18_def sup_place_def row_arith)

lemma sup_indicies_19_place: "all1 sup_place 21600 22800 (concat sup_indicies_19)"
  by (simp only: sup_indicies_19_def sup_place_def row_arith)

lemma sup_indicies_20_place: "all1 sup_place 22800 24000 (concat sup_indicies_20)"
  by (simp only: sup_indicies_20_def sup_place_def row_arith)

lemma sup_indicies_21_place: "all1 sup_place 24000 25200 (concat sup_indicies_21)"
  by (simp only: sup_indicies_21_def sup_place_def row_arith)

lemma sup_indicies_22_place: "all1 sup_place 25200 26400 (concat sup_indicies_22)"
  by (simp only: sup_indicies_22_def sup_place_def row_arith)

lemma sup_indicies_23_place: "all1 sup_place 26400 27600 (concat sup_indicies_23)"
  by (simp only: sup_indicies_23_def sup_place_def row_arith)

lemma sup_indicies_24_place: "all1 sup_place 27600 28800 (concat sup_indicies_24)"
  by (simp only: sup_indicies_24_def sup_place_def row_arith)

lemma sup_indicies_25_place: "all1 sup_place 28800 30000 (concat sup_indicies_25)"
  by (simp only: sup_indicies_25_def sup_place_def row_arith)

lemma sup_indicies_26_place: "all1 sup_place 30000 31200 (concat sup_indicies_26)"
  by (simp only: sup_indicies_26_def sup_place_def row_arith)

lemma sup_indicies_27_place: "all1 sup_place 31200 32400 (concat sup_indicies_27)"
  by (simp only: sup_indicies_27_def sup_place_def row_arith)

lemma sup_indicies_28_place: "all1 sup_place 32400 33600 (concat sup_indicies_28)"
  by (simp only: sup_indicies_28_def sup_place_def row_arith)

lemma sup_indicies_29_place: "all1 sup_place 33600 34800 (concat sup_indicies_29)"
  by (simp only: sup_indicies_29_def sup_place_def row_arith)

lemma sup_indicies_30_place: "all1 sup_place 34800 36000 (concat sup_indicies_30)"
  by (simp only: sup_indicies_30_def sup_place_def row_arith)

lemma sup_indicies_31_place: "all1 sup_place 36000 37200 (concat sup_indicies_31)"
  by (simp only: sup_indicies_31_def sup_place_def row_arith)

lemma sup_indicies_32_place: "all1 sup_place 37200 38400 (concat sup_indicies_32)"
  by (simp only: sup_indicies_32_def sup_place_def row_arith)

lemma sup_indicies_33_place: "all1 sup_place 38400 39600 (concat sup_indicies_33)"
  by (simp only: sup_indicies_33_def sup_place_def row_arith)

lemma sup_indicies_34_place: "all1 sup_place 39600 40800 (concat sup_indicies_34)"
  by (simp only: sup_indicies_34_def sup_place_def row_arith)

lemma sup_indicies_35_place: "all1 sup_place 40800 42000 (concat sup_indicies_35)"
  by (simp only: sup_indicies_35_def sup_place_def row_arith)

lemma sup_indicies_36_place: "all1 sup_place 42000 43200 (concat sup_indicies_36)"
  by (simp only: sup_indicies_36_def sup_place_def row_arith)

lemma sup_indicies_37_place: "all1 sup_place 43200 44400 (concat sup_indicies_37)"
  by (simp only: sup_indicies_37_def sup_place_def row_arith)

lemma sup_indicies_38_place: "all1 sup_place 44400 45600 (concat sup_indicies_38)"
  by (simp only: sup_indicies_38_def sup_place_def row_arith)

lemma sup_indicies_39_place: "all1 sup_place 45600 46800 (concat sup_indicies_39)"
  by (simp only: sup_indicies_39_def sup_place_def row_arith)

lemma sup_indicies_40_place: "all1 sup_place 46800 47474 (concat sup_indicies_40)"
  by (simp only: sup_indicies_40_def sup_place_def row_arith)

lemma sup_indicies_place: "all1 sup_place 0 47474 sup_indicies"
  unfolding sup_indicies_def
  by (intro all1_append)
    (rule
      sup_indicies_1_place sup_indicies_2_place sup_indicies_3_place sup_indicies_4_place
      sup_indicies_5_place sup_indicies_6_place sup_indicies_7_place sup_indicies_8_place
      sup_indicies_9_place sup_indicies_10_place sup_indicies_11_place sup_indicies_12_place
      sup_indicies_13_place sup_indicies_14_place sup_indicies_15_place sup_indicies_16_place
      sup_indicies_17_place sup_indicies_18_place sup_indicies_19_place sup_indicies_20_place
      sup_indicies_21_place sup_indicies_22_place sup_indicies_23_place sup_indicies_24_place
      sup_indicies_25_place sup_indicies_26_place sup_indicies_27_place sup_indicies_28_place
      sup_indicies_29_place sup_indicies_30_place sup_indicies_31_place sup_indicies_32_place
      sup_indicies_33_place sup_indicies_34_place sup_indicies_35_place sup_indicies_36_place
      sup_indicies_37_place sup_indicies_38_place sup_indicies_39_place sup_indicies_40_place)+

definition sup_actions_1 :: "int list list" where
  "sup_actions_1 =
    [[0, 1, 0, 1, 6, 1, 7, 1],
     [8, 1, 9, 1, 10, 1, 11, 1],
     [12, 1, 13, 1, 24, 1, 27, 1],
     [28, 1, 31, 1, 32, 2, 0, 29],
     [2, 0, 30, 2, 1, 5, 2, 2],
     [5, 2, 4, 5, 2, 6, 31, 2],
     [7, 0, 2, 7, 31, 2, 8, 0],
     [2, 8, 31, 2, 9, 0, 2, 9],
     [31, 2, 10, 0, 2, 10, 31, 2],
     [12, 15, 2, 12, 25, 2, 12, 26],
     [2, 13, 0, 2, 14, 15, 2, 16],
     [31, 2, 24, 0, 2, 24, 31, 2],
     [27, 0, 2, 27, 31, 2, 30, 0],
     [2, 31, 32, 3, 3, 5, 0, 3],
     [6, 31, 32, 3, 7, 31, 32, 3],
     [8, 31, 32, 3, 9, 31, 32, 3],
     [10, 31, 32, 3, 12, 15, 0, 3],
     [12, 15, 25, 3, 12, 15, 26, 3],
     [12, 15, 31, 3, 14, 15, 0, 3],
     [14, 15, 17, 3, 14, 15, 18, 3],
     [14, 15, 19, 3, 14, 15, 20, 3],
     [14, 15, 21, 3, 14, 15, 22, 3],
     [14, 15, 23, 3, 14, 15, 24, 3],
     [14, 15, 27, 3, 14, 15, 31, 3],
     [16, 31, 32, 3, 24, 31, 32, 3],
     [27, 31, 32, 4, 12, 15, 25, 0],
     [4, 12, 15, 25, 31, 4, 12, 15],
     [26, 0, 4, 12, 15, 26, 31, 4],
     [12, 15, 31, 32, 4, 14, 15, 17],
     [31, 4, 14, 15, 18, 0, 4, 14],
     [15, 18, 31, 4, 14, 15, 19, 0],
     [4, 14, 15, 19, 31, 4, 14, 15],
     [20, 0, 4, 14, 15, 20, 31, 4],
     [14, 15, 21, 0, 4, 14, 15, 21],
     [31, 4, 14, 15, 22, 0, 4, 14],
     [15, 22, 31, 4, 14, 15, 23, 0],
     [4, 14, 15, 23, 31, 4, 14, 15],
     [24, 0, 4, 14, 15, 24, 31, 4],
     [14, 15, 27, 0, 4, 14, 15, 27],
     [31, 4, 14, 15, 31, 32, 5, 12],
     [15, 25, 31, 32, 5, 12, 15, 26],
     [31, 32, 5, 14, 15, 17, 31, 32],
     [5, 14, 15, 18, 31, 32, 5, 14],
     [15, 19, 31, 32, 5, 14, 15, 20],
     [31, 32, 5, 14, 15, 21, 31, 32],
     [5, 14, 15, 22, 31, 32, 5, 14],
     [15, 23, 31, 32, 5, 14, 15, 24],
     [31, 32, 5, 14, 15, 27, 31, 32]]"

definition sup_actions :: "int list" where
  "sup_actions =
     concat sup_actions_1"

definition sup_trans_targs_1 :: "int list list" where
  "sup_trans_targs_1 =
    [[2, 0, 3, 1033, 1038, 6, 1048, 1471],
     [1855, 1891, 2314, 2562, 2570, 3017, 3522, 4],
     [5, 7, 613, 997, 7, 8, 9, 10],
     [397, 403, 212, 29, 245, 399, 402, 11],
     [13, 16, 12, 14, 15, 17, 241, 243],
     [242, 21, 18, 223, 19, 20, 22, 23],
     [24, 25, 217, 219, 218, 26, 216, 27],
     [215, 28, 3710, 29, 30, 36, 31, 32],
     [33, 34, 35, 37, 40, 38, 39, 41],
     [42, 45, 43, 44, 46, 49, 51, 61],
     [47, 48, 50, 52, 53, 54, 55, 56],
     [57, 59, 60, 58, 62, 197, 63, 66],
     [64, 65, 67, 183, 68, 71, 69, 70],
     [72, 169, 73, 76, 74, 75, 77, 155],
     [78, 81, 79, 80, 82, 141, 83, 86],
     [84, 85, 87, 127, 88, 91, 89, 90],
     [92, 118, 121, 124, 125, 126, 93, 111],
     [114, 94, 107, 109, 108, 95, 96, 103],
     [105, 104, 97, 98, 99, 101, 100, 102],
     [106, 110, 112, 113, 115, 116, 117, 119],
     [120, 122, 123, 128, 133, 136, 139, 140],
     [129, 132, 130, 131, 134, 135, 137, 138],
     [142, 147, 150, 153, 154, 143, 146, 144],
     [145, 148, 149, 151, 152, 156, 161, 164],
     [167, 168, 157, 160, 158, 159, 162, 163],
     [165, 166, 170, 175, 178, 181, 182, 171],
     [174, 172, 173, 176, 177, 179, 180, 184],
     [189, 192, 195, 196, 185, 188, 186, 187],
     [190, 191, 193, 194, 198, 199, 204, 207],
     [210, 211, 200, 203, 201, 202, 205, 206],
     [208, 209, 213, 214, 220, 221, 222, 224],
     [237, 239, 238, 225, 226, 233, 235, 234],
     [227, 228, 229, 231, 230, 232, 236, 240],
     [244, 246, 382, 247, 250, 248, 249, 251],
     [368, 252, 255, 253, 254, 256, 354, 257],
     [260, 258, 259, 261, 340, 262, 265, 263],
     [264, 266, 326, 267, 270, 268, 269, 271],
     [312, 272, 275, 273, 274, 276, 303, 306],
     [309, 310, 311, 277, 296, 299, 278, 292],
     [294, 293, 279, 280, 288, 290, 289, 281],
     [282, 284, 286, 285, 283, 287, 291, 295],
     [297, 298, 300, 301, 302, 304, 305, 307],
     [308, 313, 318, 321, 324, 325, 314, 317],
     [315, 316, 319, 320, 322, 323, 327, 332],
     [335, 338, 339, 328, 331, 329, 330, 333],
     [334, 336, 337, 341, 346, 349, 352, 353],
     [342, 345, 343, 344, 347, 348, 350, 351],
     [355, 360, 363, 366, 367, 356, 359, 357],
     [358, 361, 362, 364, 365, 369, 374, 377],
     [380, 381, 370, 373, 371, 372, 375, 376],
     [378, 379, 383, 384, 389, 392, 395, 396],
     [385, 388, 386, 387, 390, 391, 393, 394],
     [398, 400, 401, 404, 405, 406, 607, 455],
     [609, 612, 407, 409, 412, 408, 410, 411],
     [413, 451, 453, 452, 417, 414, 433, 415],
     [416, 418, 419, 420, 421, 427, 429, 428],
     [422, 426, 423, 425, 424, 430, 431, 432],
     [434, 447, 449, 448, 435, 436, 443, 445],
     [444, 437, 438, 439, 441, 440, 442, 446],
     [450, 454, 456, 592, 457, 460, 458, 459],
     [461, 578, 462, 465, 463, 464, 466, 564],
     [467, 470, 468, 469, 471, 550, 472, 475],
     [473, 474, 476, 536, 477, 480, 478, 479],
     [481, 522, 482, 485, 483, 484, 486, 513],
     [516, 519, 520, 521, 487, 506, 509, 488],
     [502, 504, 503, 489, 490, 498, 500, 499],
     [491, 492, 494, 496, 495, 493, 497, 501],
     [505, 507, 508, 510, 511, 512, 514, 515],
     [517, 518, 523, 528, 531, 534, 535, 524],
     [527, 525, 526, 529, 530, 532, 533, 537],
     [542, 545, 548, 549, 538, 541, 539, 540],
     [543, 544, 546, 547, 551, 556, 559, 562],
     [563, 552, 555, 553, 554, 557, 558, 560],
     [561, 565, 570, 573, 576, 577, 566, 569],
     [567, 568, 571, 572, 574, 575, 579, 584],
     [587, 590, 591, 580, 583, 581, 582, 585],
     [586, 588, 589, 593, 594, 599, 602, 605],
     [606, 595, 598, 596, 597, 600, 601, 603],
     [604, 608, 610, 611, 614, 615, 616, 996],
     [617, 618, 880, 992, 994, 993, 884, 728],
     [617, 618, 620, 623, 619, 621, 622, 624],
     [724, 726, 725, 628, 625, 706, 626, 627],
     [628, 629, 630, 631, 636, 29, 644, 632],
     [700, 702, 701, 633, 699, 634, 698, 635],
     [636, 29, 644, 637, 638, 652, 659, 669],
     [637, 638, 636, 640, 29, 644, 639, 641],
     [642, 651, 641, 642, 636, 29, 644, 643],
     [645, 646, 648, 647, 649, 644, 29, 650],
     [653, 636, 654, 29, 644, 655, 656, 657],
     [655, 656, 658, 636, 644, 660, 661, 636],
     [654, 29, 644, 662, 663, 664, 665, 666],
     [667, 665, 666, 636, 29, 644, 667, 668],
     [636, 29, 644, 670, 671, 672, 673, 674],
     [675, 676, 677, 678, 679, 680, 683, 687],
     [692, 695, 681, 679, 680, 636, 29, 644],
     [681, 682, 636, 29, 644, 684, 685, 686],
     [636, 29, 644, 688, 690, 689, 636, 29],
     [644, 691, 636, 29, 644, 693, 694, 636],
     [29, 644, 696, 636, 29, 644, 697, 636],
     [29, 644, 701, 703, 704, 705, 707, 720],
     [722, 721, 708, 709, 716, 718, 717, 710],
     [711, 712, 714, 713, 631, 636, 29, 644],
     [715, 719, 723, 725, 624, 727, 729, 865],
     [730, 733, 731, 732, 734, 851, 735, 738],
     [736, 737, 739, 837, 740, 743, 741, 742],
     [744, 823, 745, 748, 746, 747, 749, 809],
     [750, 753, 751, 752, 754, 795, 755, 758],
     [756, 757, 759, 786, 789, 792, 793, 794],
     [760, 779, 782, 761, 775, 777, 776, 762],
     [763, 771, 773, 772, 764, 765, 767, 769],
     [768, 766, 631, 636, 29, 644, 770, 774],
     [778, 780, 781, 783, 784, 785, 787, 788],
     [790, 791, 796, 801, 804, 807, 808, 797],
     [800, 798, 799, 802, 803, 805, 806, 810],
     [815, 818, 821, 822, 811, 814, 812, 813],
     [816, 817, 819, 820, 824, 829, 832, 835],
     [836, 825, 828, 826, 827, 830, 831, 833],
     [834, 838, 843, 846, 849, 850, 839, 842],
     [840, 841, 844, 845, 847, 848, 852, 857],
     [860, 863, 864, 853, 856, 854, 855, 858],
     [859, 861, 862, 866, 867, 872, 875, 878],
     [879, 868, 871, 869, 870, 873, 874, 876],
     [877, 881, 974, 882, 883, 884, 885, 886],
     [887, 900, 916, 888, 894, 896, 895, 889],
     [893, 890, 892, 891, 895, 897, 898, 899],
     [901, 902, 904, 931, 937, 946, 901, 902],
     [904, 900, 912, 916, 903, 905, 907, 906],
     [908, 909, 911, 908, 909, 910, 913, 914],
     [930, 913, 914, 900, 916, 915, 917, 918],
     [920, 927, 919, 921, 923, 922, 924, 926],
     [925, 928, 916, 929, 932, 900, 933, 916],
     [934, 935, 934, 935, 936, 938, 939, 900],
     [933, 916, 940, 941, 942, 943, 944, 943],
     [944, 900, 916, 945, 947, 948, 949, 950],
     [951, 952, 953, 954, 955, 956, 957, 959],
     [963, 968, 971, 956, 957, 900, 916, 958],
     [960, 961, 962, 900, 916, 964, 966, 965],
     [900, 916, 967, 900, 916, 969, 970, 900],
     [916, 972, 900, 916, 973, 900, 916, 975],
     [988, 990, 989, 976, 977, 984, 986, 985],
     [978, 979, 980, 982, 981, 887, 900, 916],
     [983, 987, 991, 993, 880, 995, 616, 998],
     [999, 1000, 1001, 1030, 1031, 1001, 1002, 29],
     [1003, 1008, 1003, 1002, 1004, 1005, 1006, 1005],
     [1006, 1002, 1007, 1009, 1010, 1011, 1012, 1013],
     [1014, 1015, 1016, 1017, 1018, 1019, 1020, 1021],
     [1022, 1024, 1027, 1022, 1023, 1002, 29, 1025],
     [1026, 1024, 1027, 1028, 1029, 1030, 1031, 1032],
     [1034, 1035, 1033, 6, 1034, 1035, 1036, 1037],
     [1039, 1040, 1041, 1042, 1043, 1038, 1044, 1046]]"

definition sup_trans_targs_2 :: "int list list" where
  "sup_trans_targs_2 =
    [[1047, 1045, 2, 3, 1048, 1049, 3710, 1050],
     [1051, 1255, 1261, 1070, 1103, 1257, 1260, 1052],
     [1054, 1057, 1053, 1055, 1056, 1058, 1099, 1101],
     [1100, 1062, 1059, 1081, 1060, 1061, 1063, 1064],
     [1065, 1066, 1075, 1077, 1076, 1067, 1074, 1068],
     [1073, 1069, 1071, 1072, 1078, 1079, 1080, 1082],
     [1095, 1097, 1096, 1083, 1084, 1091, 1093, 1092],
     [1085, 1086, 1087, 1089, 1088, 1090, 1094, 1098],
     [1102, 1104, 1240, 1105, 1108, 1106, 1107, 1109],
     [1226, 1110, 1113, 1111, 1112, 1114, 1212, 1115],
     [1118, 1116, 1117, 1119, 1198, 1120, 1123, 1121],
     [1122, 1124, 1184, 1125, 1128, 1126, 1127, 1129],
     [1170, 1130, 1133, 1131, 1132, 1134, 1161, 1164],
     [1167, 1168, 1169, 1135, 1154, 1157, 1136, 1150],
     [1152, 1151, 1137, 1138, 1146, 1148, 1147, 1139],
     [1140, 1142, 1144, 1143, 1141, 1145, 1149, 1153],
     [1155, 1156, 1158, 1159, 1160, 1162, 1163, 1165],
     [1166, 1171, 1176, 1179, 1182, 1183, 1172, 1175],
     [1173, 1174, 1177, 1178, 1180, 1181, 1185, 1190],
     [1193, 1196, 1197, 1186, 1189, 1187, 1188, 1191],
     [1192, 1194, 1195, 1199, 1204, 1207, 1210, 1211],
     [1200, 1203, 1201, 1202, 1205, 1206, 1208, 1209],
     [1213, 1218, 1221, 1224, 1225, 1214, 1217, 1215],
     [1216, 1219, 1220, 1222, 1223, 1227, 1232, 1235],
     [1238, 1239, 1228, 1231, 1229, 1230, 1233, 1234],
     [1236, 1237, 1241, 1242, 1247, 1250, 1253, 1254],
     [1243, 1246, 1244, 1245, 1248, 1249, 1251, 1252],
     [1256, 1258, 1259, 1262, 1263, 1264, 1465, 1313],
     [1467, 1470, 1265, 1267, 1270, 1266, 1268, 1269],
     [1271, 1309, 1311, 1310, 1275, 1272, 1291, 1273],
     [1274, 1276, 1277, 1278, 1279, 1285, 1287, 1286],
     [1280, 1284, 1281, 1283, 1282, 1288, 1289, 1290],
     [1292, 1305, 1307, 1306, 1293, 1294, 1301, 1303],
     [1302, 1295, 1296, 1297, 1299, 1298, 1300, 1304],
     [1308, 1312, 1314, 1450, 1315, 1318, 1316, 1317],
     [1319, 1436, 1320, 1323, 1321, 1322, 1324, 1422],
     [1325, 1328, 1326, 1327, 1329, 1408, 1330, 1333],
     [1331, 1332, 1334, 1394, 1335, 1338, 1336, 1337],
     [1339, 1380, 1340, 1343, 1341, 1342, 1344, 1371],
     [1374, 1377, 1378, 1379, 1345, 1364, 1367, 1346],
     [1360, 1362, 1361, 1347, 1348, 1356, 1358, 1357],
     [1349, 1350, 1352, 1354, 1353, 1351, 1355, 1359],
     [1363, 1365, 1366, 1368, 1369, 1370, 1372, 1373],
     [1375, 1376, 1381, 1386, 1389, 1392, 1393, 1382],
     [1385, 1383, 1384, 1387, 1388, 1390, 1391, 1395],
     [1400, 1403, 1406, 1407, 1396, 1399, 1397, 1398],
     [1401, 1402, 1404, 1405, 1409, 1414, 1417, 1420],
     [1421, 1410, 1413, 1411, 1412, 1415, 1416, 1418],
     [1419, 1423, 1428, 1431, 1434, 1435, 1424, 1427],
     [1425, 1426, 1429, 1430, 1432, 1433, 1437, 1442],
     [1445, 1448, 1449, 1438, 1441, 1439, 1440, 1443],
     [1444, 1446, 1447, 1451, 1452, 1457, 1460, 1463],
     [1464, 1453, 1456, 1454, 1455, 1458, 1459, 1461],
     [1462, 1466, 1468, 1469, 1472, 1473, 1474, 1854],
     [1475, 1476, 1738, 1850, 1852, 1851, 1742, 1586],
     [1475, 1476, 1478, 1481, 1477, 1479, 1480, 1482],
     [1582, 1584, 1583, 1486, 1483, 1564, 1484, 1485],
     [1486, 3710, 1487, 1488, 1489, 1494, 1502, 1490],
     [1558, 1560, 1559, 1491, 1557, 1492, 1556, 1493],
     [3710, 1494, 1502, 1495, 1496, 1510, 1517, 1527],
     [3710, 1495, 1496, 1494, 1498, 1502, 1497, 1499],
     [1500, 1509, 3710, 1499, 1500, 1494, 1502, 1501],
     [1503, 1504, 1506, 1505, 3710, 1507, 1502, 1508],
     [1511, 3710, 1494, 1512, 1502, 1513, 1514, 1515],
     [1513, 1514, 1516, 1494, 1502, 1518, 1519, 3710],
     [1494, 1512, 1502, 1520, 1521, 1522, 1523, 1524],
     [1525, 3710, 1523, 1524, 1494, 1502, 1525, 3710],
     [1526, 1494, 1502, 1528, 1529, 1530, 1531, 1532],
     [1533, 1534, 1535, 1536, 1537, 1538, 1541, 1545],
     [1550, 1553, 1539, 3710, 1537, 1538, 1494, 1502],
     [1539, 3710, 1540, 1494, 1502, 1542, 1543, 1544],
     [3710, 1494, 1502, 1546, 1548, 1547, 3710, 1494],
     [1502, 1549, 3710, 1494, 1502, 1551, 1552, 3710],
     [1494, 1502, 1554, 3710, 1494, 1502, 1555, 3710],
     [1494, 1502, 1559, 1561, 1562, 1563, 1565, 1578],
     [1580, 1579, 1566, 1567, 1574, 1576, 1575, 1568],
     [1569, 1570, 1572, 1571, 3710, 1489, 1494, 1502],
     [1573, 1577, 1581, 1583, 1482, 1585, 1587, 1723],
     [1588, 1591, 1589, 1590, 1592, 1709, 1593, 1596],
     [1594, 1595, 1597, 1695, 1598, 1601, 1599, 1600],
     [1602, 1681, 1603, 1606, 1604, 1605, 1607, 1667],
     [1608, 1611, 1609, 1610, 1612, 1653, 1613, 1616],
     [1614, 1615, 1617, 1644, 1647, 1650, 1651, 1652],
     [1618, 1637, 1640, 1619, 1633, 1635, 1634, 1620],
     [1621, 1629, 1631, 1630, 1622, 1623, 1625, 1627],
     [1626, 1624, 3710, 1489, 1494, 1502, 1628, 1632],
     [1636, 1638, 1639, 1641, 1642, 1643, 1645, 1646],
     [1648, 1649, 1654, 1659, 1662, 1665, 1666, 1655],
     [1658, 1656, 1657, 1660, 1661, 1663, 1664, 1668],
     [1673, 1676, 1679, 1680, 1669, 1672, 1670, 1671],
     [1674, 1675, 1677, 1678, 1682, 1687, 1690, 1693],
     [1694, 1683, 1686, 1684, 1685, 1688, 1689, 1691],
     [1692, 1696, 1701, 1704, 1707, 1708, 1697, 1700],
     [1698, 1699, 1702, 1703, 1705, 1706, 1710, 1715],
     [1718, 1721, 1722, 1711, 1714, 1712, 1713, 1716],
     [1717, 1719, 1720, 1724, 1725, 1730, 1733, 1736],
     [1737, 1726, 1729, 1727, 1728, 1731, 1732, 1734],
     [1735, 1739, 1832, 1740, 1741, 1742, 1743, 1744],
     [1745, 1758, 1774, 1746, 1752, 1754, 1753, 1747],
     [1751, 1748, 1750, 1749, 1753, 1755, 1756, 1757],
     [1759, 1760, 1762, 1789, 1795, 1804, 1759, 1760],
     [1762, 1758, 1770, 1774, 1761, 1763, 1765, 1764],
     [1766, 1767, 1769, 1766, 1767, 1768, 1771, 1772],
     [1788, 1771, 1772, 1758, 1774, 1773, 1775, 1776],
     [1778, 1785, 1777, 1779, 1781, 1780, 1782, 1784],
     [1783, 1786, 1774, 1787, 1790, 1758, 1791, 1774],
     [1792, 1793, 1792, 1793, 1794, 1796, 1797, 1758],
     [1791, 1774, 1798, 1799, 1800, 1801, 1802, 1801],
     [1802, 1758, 1774, 1803, 1805, 1806, 1807, 1808],
     [1809, 1810, 1811, 1812, 1813, 1814, 1815, 1817],
     [1821, 1826, 1829, 1814, 1815, 1758, 1774, 1816],
     [1818, 1819, 1820, 1758, 1774, 1822, 1824, 1823],
     [1758, 1774, 1825, 1758, 1774, 1827, 1828, 1758],
     [1774, 1830, 1758, 1774, 1831, 1758, 1774, 1833],
     [1846, 1848, 1847, 1834, 1835, 1842, 1844, 1843],
     [1836, 1837, 1838, 1840, 1839, 1745, 1758, 1774],
     [1841, 1845, 1849, 1851, 1738, 1853, 1474, 1856],
     [1857, 1858, 1859, 1888, 1889, 3710, 1859, 1860],
     [1861, 1866, 1861, 1860, 1862, 1863, 1864, 1863],
     [1864, 1860, 1865, 1867, 1868, 1869, 1870, 1871],
     [1872, 1873, 1874, 1875, 1876, 1877, 1878, 1879],
     [1880, 1882, 1885, 1880, 1881, 3710, 1860, 1883],
     [1884, 1882, 1885, 1886, 1887, 1888, 1889, 1890],
     [1891, 1892, 50, 33, 1893, 1894, 2095, 2104],
     [2100, 36, 1943, 2097, 2103, 1895, 1897, 1900],
     [1896, 1898, 1899, 1901, 1939, 1941, 1940, 1905],
     [1902, 1921, 1903, 1904, 1906, 1907, 1908, 1909],
     [1915, 1917, 1916, 1910, 1914, 1911, 1913, 1912],
     [1918, 1919, 1920, 1922, 1935, 1937, 1936, 1923],
     [1924, 1931, 1933, 1932, 1925, 1926, 1927, 1929],
     [1928, 1930, 1934, 1938, 1942, 1944, 2080, 1945],
     [1948, 1946, 1947, 1949, 2066, 1950, 1953, 1951],
     [1952, 1954, 2052, 1955, 1958, 1956, 1957, 1959],
     [2038, 1960, 1963, 1961, 1962, 1964, 2024, 1965],
     [1968, 1966, 1967, 1969, 2010, 1970, 1973, 1971],
     [1972, 1974, 2001, 2004, 2007, 2008, 2009, 1975],
     [1994, 1997, 1976, 1990, 1992, 1991, 1977, 1978],
     [1986, 1988, 1987, 1979, 1980, 1982, 1984, 1983],
     [1981, 1985, 1989, 1993, 1995, 1996, 1998, 1999],
     [2000, 2002, 2003, 2005, 2006, 2011, 2016, 2019],
     [2022, 2023, 2012, 2015, 2013, 2014, 2017, 2018],
     [2020, 2021, 2025, 2030, 2033, 2036, 2037, 2026],
     [2029, 2027, 2028, 2031, 2032, 2034, 2035, 2039],
     [2044, 2047, 2050, 2051, 2040, 2043, 2041, 2042],
     [2045, 2046, 2048, 2049, 2053, 2058, 2061, 2064],
     [2065, 2054, 2057, 2055, 2056, 2059, 2060, 2062],
     [2063, 2067, 2072, 2075, 2078, 2079, 2068, 2071],
     [2069, 2070, 2073, 2074, 2076, 2077, 2081, 2082],
     [2087, 2090, 2093, 2094, 2083, 2086, 2084, 2085],
     [2088, 2089, 2091, 2092, 2096, 2098, 2099, 2101]]"

definition sup_trans_targs_3 :: "int list list" where
  "sup_trans_targs_3 =
    [[2102, 2105, 2106, 2107, 2308, 2156, 2310, 2313],
     [2108, 2110, 2113, 2109, 2111, 2112, 2114, 2152],
     [2154, 2153, 2118, 2115, 2134, 2116, 2117, 2119],
     [2120, 2121, 2122, 2128, 2130, 2129, 2123, 2127],
     [2124, 2126, 2125, 2131, 2132, 2133, 2135, 2148],
     [2150, 2149, 2136, 2137, 2144, 2146, 2145, 2138],
     [2139, 2140, 2142, 2141, 2143, 2147, 2151, 2155],
     [2157, 2293, 2158, 2161, 2159, 2160, 2162, 2279],
     [2163, 2166, 2164, 2165, 2167, 2265, 2168, 2171],
     [2169, 2170, 2172, 2251, 2173, 2176, 2174, 2175],
     [2177, 2237, 2178, 2181, 2179, 2180, 2182, 2223],
     [2183, 2186, 2184, 2185, 2187, 2214, 2217, 2220],
     [2221, 2222, 2188, 2207, 2210, 2189, 2203, 2205],
     [2204, 2190, 2191, 2199, 2201, 2200, 2192, 2193],
     [2195, 2197, 2196, 2194, 2198, 2202, 2206, 2208],
     [2209, 2211, 2212, 2213, 2215, 2216, 2218, 2219],
     [2224, 2229, 2232, 2235, 2236, 2225, 2228, 2226],
     [2227, 2230, 2231, 2233, 2234, 2238, 2243, 2246],
     [2249, 2250, 2239, 2242, 2240, 2241, 2244, 2245],
     [2247, 2248, 2252, 2257, 2260, 2263, 2264, 2253],
     [2256, 2254, 2255, 2258, 2259, 2261, 2262, 2266],
     [2271, 2274, 2277, 2278, 2267, 2270, 2268, 2269],
     [2272, 2273, 2275, 2276, 2280, 2285, 2288, 2291],
     [2292, 2281, 2284, 2282, 2283, 2286, 2287, 2289],
     [2290, 2294, 2295, 2300, 2303, 2306, 2307, 2296],
     [2299, 2297, 2298, 2301, 2302, 2304, 2305, 2309],
     [2311, 2312, 2315, 2316, 2317, 2561, 2318, 2319],
     [2519, 2557, 2559, 2558, 2523, 2367, 2318, 2319],
     [2321, 2324, 2320, 2322, 2323, 2325, 2363, 2365],
     [2364, 2329, 2326, 2345, 2327, 2328, 2329, 50],
     [33, 2330, 2331, 2332, 36, 2333, 2339, 2341],
     [2340, 2334, 2338, 2335, 2337, 2336, 50, 33],
     [36, 2340, 2342, 2343, 2344, 2346, 2359, 2361],
     [2360, 2347, 2348, 2355, 2357, 2356, 2349, 2350],
     [2351, 2353, 2352, 50, 33, 2332, 36, 2354],
     [2358, 2362, 2364, 2325, 2366, 2368, 2504, 2369],
     [2372, 2370, 2371, 2373, 2490, 2374, 2377, 2375],
     [2376, 2378, 2476, 2379, 2382, 2380, 2381, 2383],
     [2462, 2384, 2387, 2385, 2386, 2388, 2448, 2389],
     [2392, 2390, 2391, 2393, 2434, 2394, 2397, 2395],
     [2396, 2398, 2425, 2428, 2431, 2432, 2433, 2399],
     [2418, 2421, 2400, 2414, 2416, 2415, 2401, 2402],
     [2410, 2412, 2411, 2403, 2404, 2406, 2408, 2407],
     [2405, 50, 33, 2332, 36, 2409, 2413, 2417],
     [2419, 2420, 2422, 2423, 2424, 2426, 2427, 2429],
     [2430, 2435, 2440, 2443, 2446, 2447, 2436, 2439],
     [2437, 2438, 2441, 2442, 2444, 2445, 2449, 2454],
     [2457, 2460, 2461, 2450, 2453, 2451, 2452, 2455],
     [2456, 2458, 2459, 2463, 2468, 2471, 2474, 2475],
     [2464, 2467, 2465, 2466, 2469, 2470, 2472, 2473],
     [2477, 2482, 2485, 2488, 2489, 2478, 2481, 2479],
     [2480, 2483, 2484, 2486, 2487, 2491, 2496, 2499],
     [2502, 2503, 2492, 2495, 2493, 2494, 2497, 2498],
     [2500, 2501, 2505, 2506, 2511, 2514, 2517, 2518],
     [2507, 2510, 2508, 2509, 2512, 2513, 2515, 2516],
     [2520, 2539, 2521, 2522, 2523, 2524, 2525, 2526],
     [2527, 2533, 2535, 2534, 2528, 2532, 2529, 2531],
     [2530, 2534, 2536, 2537, 2538, 2540, 2553, 2555],
     [2554, 2541, 2542, 2549, 2551, 2550, 2543, 2544],
     [2545, 2547, 2546, 2526, 2548, 2552, 2556, 2558],
     [2519, 2560, 2317, 2563, 2564, 2565, 2566, 2567],
     [2568, 50, 33, 2566, 36, 2567, 2568, 2569],
     [2570, 2571, 2572, 2573, 2774, 2799, 2779, 2791],
     [2622, 2776, 2790, 2574, 2576, 2579, 2575, 2577],
     [2578, 2580, 2618, 2620, 2619, 2584, 2581, 2600],
     [2582, 2583, 2585, 2586, 2587, 2588, 2594, 2596],
     [2595, 2589, 2593, 2590, 2592, 2591, 2597, 2598],
     [2599, 2601, 2614, 2616, 2615, 2602, 2603, 2610],
     [2612, 2611, 2604, 2605, 2606, 2608, 2607, 2609],
     [2613, 2617, 2621, 2623, 2759, 2624, 2627, 2625],
     [2626, 2628, 2745, 2629, 2632, 2630, 2631, 2633],
     [2731, 2634, 2637, 2635, 2636, 2638, 2717, 2639],
     [2642, 2640, 2641, 2643, 2703, 2644, 2647, 2645],
     [2646, 2648, 2689, 2649, 2652, 2650, 2651, 2653],
     [2680, 2683, 2686, 2687, 2688, 2654, 2673, 2676],
     [2655, 2669, 2671, 2670, 2656, 2657, 2665, 2667],
     [2666, 2658, 2659, 2661, 2663, 2662, 2660, 2664],
     [2668, 2672, 2674, 2675, 2677, 2678, 2679, 2681],
     [2682, 2684, 2685, 2690, 2695, 2698, 2701, 2702],
     [2691, 2694, 2692, 2693, 2696, 2697, 2699, 2700],
     [2704, 2709, 2712, 2715, 2716, 2705, 2708, 2706],
     [2707, 2710, 2711, 2713, 2714, 2718, 2723, 2726],
     [2729, 2730, 2719, 2722, 2720, 2721, 2724, 2725],
     [2727, 2728, 2732, 2737, 2740, 2743, 2744, 2733],
     [2736, 2734, 2735, 2738, 2739, 2741, 2742, 2746],
     [2751, 2754, 2757, 2758, 2747, 2750, 2748, 2749],
     [2752, 2753, 2755, 2756, 2760, 2761, 2766, 2769],
     [2772, 2773, 2762, 2765, 2763, 2764, 2767, 2768],
     [2770, 2771, 2775, 2777, 2782, 2778, 2780, 2781],
     [2783, 2784, 2782, 2786, 2785, 2787, 2788, 2789],
     [2792, 2793, 2791, 2795, 2794, 2796, 2797, 2798],
     [2800, 2801, 2802, 3003, 3009, 2851, 3005, 3008],
     [2803, 2805, 2808, 2804, 2806, 2807, 2809, 2847],
     [2849, 2848, 2813, 2810, 2829, 2811, 2812, 2814],
     [2815, 2816, 2817, 2823, 2825, 2824, 2818, 2822],
     [2819, 2821, 2820, 2826, 2827, 2828, 2830, 2843],
     [2845, 2844, 2831, 2832, 2839, 2841, 2840, 2833],
     [2834, 2835, 2837, 2836, 2838, 2842, 2846, 2850],
     [2852, 2988, 2853, 2856, 2854, 2855, 2857, 2974],
     [2858, 2861, 2859, 2860, 2862, 2960, 2863, 2866],
     [2864, 2865, 2867, 2946, 2868, 2871, 2869, 2870],
     [2872, 2932, 2873, 2876, 2874, 2875, 2877, 2918],
     [2878, 2881, 2879, 2880, 2882, 2909, 2912, 2915],
     [2916, 2917, 2883, 2902, 2905, 2884, 2898, 2900],
     [2899, 2885, 2886, 2894, 2896, 2895, 2887, 2888],
     [2890, 2892, 2891, 2889, 2893, 2897, 2901, 2903],
     [2904, 2906, 2907, 2908, 2910, 2911, 2913, 2914],
     [2919, 2924, 2927, 2930, 2931, 2920, 2923, 2921],
     [2922, 2925, 2926, 2928, 2929, 2933, 2938, 2941],
     [2944, 2945, 2934, 2937, 2935, 2936, 2939, 2940],
     [2942, 2943, 2947, 2952, 2955, 2958, 2959, 2948],
     [2951, 2949, 2950, 2953, 2954, 2956, 2957, 2961],
     [2966, 2969, 2972, 2973, 2962, 2965, 2963, 2964],
     [2967, 2968, 2970, 2971, 2975, 2980, 2983, 2986],
     [2987, 2976, 2979, 2977, 2978, 2981, 2982, 2984],
     [2985, 2989, 2990, 2995, 2998, 3001, 3002, 2991],
     [2994, 2992, 2993, 2996, 2997, 2999, 3000, 3004],
     [3006, 3007, 3010, 3011, 3009, 3013, 3012, 3014],
     [3015, 3016, 3018, 3019, 3020, 3521, 3021, 3022],
     [3428, 3517, 3519, 3518, 3432, 3276, 3021, 3022],
     [3024, 3027, 3023, 3025, 3026, 3028, 3272, 3274],
     [3273, 3032, 3029, 3254, 3030, 3031, 3032, 3033],
     [3034, 3035, 3040, 3036, 3248, 3250, 3249, 3037],
     [3247, 3038, 3246, 3039, 3040, 3041, 3042, 3200],
     [3207, 3217, 3041, 3042, 3040, 3044, 3043, 3045],
     [3046, 3048, 3045, 3046, 3040, 3047, 3049, 3185],
     [3050, 3053, 3051, 3052, 3054, 3171, 3055, 3058],
     [3056, 3057, 3059, 3157, 3060, 3063, 3061, 3062],
     [3064, 3143, 3065, 3068, 3066, 3067, 3069, 3129],
     [3070, 3073, 3071, 3072, 3074, 3115, 3075, 3078],
     [3076, 3077, 3079, 3106, 3109, 3112, 3113, 3114],
     [3080, 3099, 3102, 3081, 3095, 3097, 3096, 3082],
     [3083, 3091, 3093, 3092, 3084, 3085, 3087, 3089],
     [3088, 3086, 3090, 3094, 3098, 3100, 3101, 3103],
     [3104, 3105, 3107, 3108, 3110, 3111, 3116, 3121],
     [3124, 3127, 3128, 3117, 3120, 3118, 3119, 3122],
     [3123, 3125, 3126, 3130, 3135, 3138, 3141, 3142],
     [3131, 3134, 3132, 3133, 3136, 3137, 3139, 3140],
     [3144, 3149, 3152, 3155, 3156, 3145, 3148, 3146],
     [3147, 3150, 3151, 3153, 3154, 3158, 3163, 3166],
     [3169, 3170, 3159, 3162, 3160, 3161, 3164, 3165],
     [3167, 3168, 3172, 3177, 3180, 3183, 3184, 3173],
     [3176, 3174, 3175, 3178, 3179, 3181, 3182, 3186],
     [3187, 3192, 3195, 3198, 3199, 3188, 3191, 3189],
     [3190, 3193, 3194, 3196, 3197, 3201, 3040, 3202],
     [3203, 3204, 3205, 3203, 3204, 3206, 3040, 3208],
     [3209, 3040, 3202, 3210, 3211, 3212, 3213, 3214],
     [3215, 3213, 3214, 3040, 3215, 3216, 3040, 3218],
     [3219, 3220, 3221, 3222, 3223, 3224, 3225, 3226],
     [3227, 3228, 3231, 3235, 3240, 3243, 3229, 3227]]"

definition sup_trans_targs_4 :: "int list list" where
  "sup_trans_targs_4 =
    [[3228, 3040, 3229, 3230, 3040, 3232, 3233, 3234],
     [3040, 3236, 3238, 3237, 3040, 3239, 3040, 3241],
     [3242, 3040, 3244, 3040, 3245, 3040, 3249, 3251],
     [3252, 3253, 3255, 3268, 3270, 3269, 3256, 3257],
     [3264, 3266, 3265, 3258, 3259, 3260, 3262, 3261],
     [3035, 3040, 3263, 3267, 3271, 3273, 3028, 3275],
     [3277, 3413, 3278, 3281, 3279, 3280, 3282, 3399],
     [3283, 3286, 3284, 3285, 3287, 3385, 3288, 3291],
     [3289, 3290, 3292, 3371, 3293, 3296, 3294, 3295],
     [3297, 3357, 3298, 3301, 3299, 3300, 3302, 3343],
     [3303, 3306, 3304, 3305, 3307, 3334, 3337, 3340],
     [3341, 3342, 3308, 3327, 3330, 3309, 3323, 3325],
     [3324, 3310, 3311, 3319, 3321, 3320, 3312, 3313],
     [3315, 3317, 3316, 3314, 3035, 3040, 3318, 3322],
     [3326, 3328, 3329, 3331, 3332, 3333, 3335, 3336],
     [3338, 3339, 3344, 3349, 3352, 3355, 3356, 3345],
     [3348, 3346, 3347, 3350, 3351, 3353, 3354, 3358],
     [3363, 3366, 3369, 3370, 3359, 3362, 3360, 3361],
     [3364, 3365, 3367, 3368, 3372, 3377, 3380, 3383],
     [3384, 3373, 3376, 3374, 3375, 3378, 3379, 3381],
     [3382, 3386, 3391, 3394, 3397, 3398, 3387, 3390],
     [3388, 3389, 3392, 3393, 3395, 3396, 3400, 3405],
     [3408, 3411, 3412, 3401, 3404, 3402, 3403, 3406],
     [3407, 3409, 3410, 3414, 3415, 3420, 3423, 3426],
     [3427, 3416, 3419, 3417, 3418, 3421, 3422, 3424],
     [3425, 3429, 3499, 3430, 3431, 3432, 3433, 3434],
     [3435, 3448, 3436, 3442, 3444, 3443, 3437, 3441],
     [3438, 3440, 3439, 3443, 3445, 3446, 3447, 3449],
     [3450, 3456, 3462, 3471, 3449, 3450, 3448, 3452],
     [3451, 3453, 3454, 3453, 3454, 3448, 3455, 3457],
     [3448, 3458, 3459, 3460, 3459, 3460, 3461, 3463],
     [3464, 3448, 3458, 3465, 3466, 3467, 3468, 3469],
     [3468, 3469, 3448, 3470, 3472, 3473, 3474, 3475],
     [3476, 3477, 3478, 3479, 3480, 3481, 3482, 3484],
     [3488, 3493, 3496, 3481, 3482, 3448, 3483, 3485],
     [3486, 3487, 3448, 3489, 3491, 3490, 3448, 3492],
     [3448, 3494, 3495, 3448, 3497, 3448, 3498, 3448],
     [3500, 3513, 3515, 3514, 3501, 3502, 3509, 3511],
     [3510, 3503, 3504, 3505, 3507, 3506, 3435, 3448],
     [3508, 3512, 3516, 3518, 3428, 3520, 3020, 3523],
     [3524, 3525, 3526, 3707, 3708, 3526, 3527, 3528],
     [3685, 3528, 3527, 3529, 3530, 3531, 3533, 3530],
     [3531, 3527, 3532, 3534, 3670, 3535, 3538, 3536],
     [3537, 3539, 3656, 3540, 3543, 3541, 3542, 3544],
     [3642, 3545, 3548, 3546, 3547, 3549, 3628, 3550],
     [3553, 3551, 3552, 3554, 3614, 3555, 3558, 3556],
     [3557, 3559, 3600, 3560, 3563, 3561, 3562, 3564],
     [3591, 3594, 3597, 3598, 3599, 3565, 3584, 3587],
     [3566, 3580, 3582, 3581, 3567, 3568, 3576, 3578],
     [3577, 3569, 3570, 3572, 3574, 3573, 3571, 3575],
     [3579, 3583, 3585, 3586, 3588, 3589, 3590, 3592],
     [3593, 3595, 3596, 3601, 3606, 3609, 3612, 3613],
     [3602, 3605, 3603, 3604, 3607, 3608, 3610, 3611],
     [3615, 3620, 3623, 3626, 3627, 3616, 3619, 3617],
     [3618, 3621, 3622, 3624, 3625, 3629, 3634, 3637],
     [3640, 3641, 3630, 3633, 3631, 3632, 3635, 3636],
     [3638, 3639, 3643, 3648, 3651, 3654, 3655, 3644],
     [3647, 3645, 3646, 3649, 3650, 3652, 3653, 3657],
     [3662, 3665, 3668, 3669, 3658, 3661, 3659, 3660],
     [3663, 3664, 3666, 3667, 3671, 3672, 3677, 3680],
     [3683, 3684, 3673, 3676, 3674, 3675, 3678, 3679],
     [3681, 3682, 3686, 3687, 3688, 3689, 3690, 3691],
     [3692, 3693, 3694, 3695, 3696, 3697, 3698, 3699],
     [3701, 3704, 3699, 3700, 3527, 3702, 3703, 3701],
     [3704, 3705, 3706, 3707, 3708, 3709]]"

definition sup_trans_targs :: "int list" where
  "sup_trans_targs =
     concat sup_trans_targs_1 @ concat sup_trans_targs_2 @ concat sup_trans_targs_3 @
     concat sup_trans_targs_4"

definition sup_trans_actions_1 :: "int list list" where
  "sup_trans_actions_1 =
    [[0, 0, 0, 1, 29, 0, 101, 101],
     [101, 32, 32, 32, 101, 101, 101, 0],
     [0, 101, 101, 101, 0, 41, 0, 0],
     [0, 0, 0, 25, 0, 0, 0, 0],
     [0, 0, 0, 0, 0, 0, 0, 0],
     [0, 0, 0, 0, 0, 0, 0, 0],
     [0, 0, 0, 0, 0, 0, 0, 0],
     [0, 0, 27, 0, 0, 0, 0, 0],
     [0, 0, 0, 0, 0, 0, 0, 0],
     [0, 0, 0, 0, 0, 0, 0, 0],
     [0, 0, 0, 0, 0, 0, 0, 0],
     [0, 0, 0, 0, 0, 0, 0, 0],
     [0, 0, 0, 0, 0, 0, 0, 0],
     [0, 0, 0, 0, 0, 0, 0, 0],
     [0, 0, 0, 0, 0, 0, 0, 0],
     [0, 0, 0, 0, 0, 0, 0, 0],
     [0, 0, 0, 0, 0, 0, 0, 0],
     [0, 0, 0, 0, 0, 0, 0, 0],
     [0, 0, 0, 0, 0, 0, 0, 0],
     [0, 0, 0, 0, 0, 0, 0, 0],
     [0, 0, 0, 0, 0, 0, 0, 0],
     [0, 0, 0, 0, 0, 0, 0, 0],
     [0, 0, 0, 0, 0, 0, 0, 0],
     [0, 0, 0, 0, 0, 0, 0, 0],
     [0, 0, 0, 0, 0, 0, 0, 0],
     [0, 0, 0, 0, 0, 0, 0, 0],
     [0, 0, 0, 0, 0, 0, 0, 0],
     [0, 0, 0, 0, 0, 0, 0, 0],
     [0, 0, 0, 0, 0, 0, 0, 0],
     [0, 0, 0, 0, 0, 0, 0, 0],
     [0, 0, 0, 0, 0, 0, 0, 0],
     [0, 0, 0, 0, 0, 0, 0, 0],
     [0, 0, 0, 0, 0, 0, 0, 0],
     [0, 0, 0, 0, 0, 0, 0, 0],
     [0, 0, 0, 0, 0, 0, 0, 0],
     [0, 0, 0, 0, 0, 0, 0, 0],
     [0, 0, 0, 0, 0, 0, 0, 0],
     [0, 0, 0, 0, 0, 0, 0, 0],
     [0, 0, 0, 0, 0, 0, 0, 0],
     [0, 0, 0, 0, 0, 0, 0, 0],
     [0, 0, 0, 0, 0, 0, 0, 0],
     [0, 0, 0, 0, 0, 0, 0, 0],
     [0, 0, 0, 0, 0, 0, 0, 0],
     [0, 0, 0, 0, 0, 0, 0, 0],
     [0, 0, 0, 0, 0, 0, 0, 0],
     [0, 0, 0, 0, 0, 0, 0, 0],
     [0, 0, 0, 0, 0, 0, 0, 0],
     [0, 0, 0, 0, 0, 0, 0, 0],
     [0, 0, 0, 0, 0, 0, 0, 0],
     [0, 0, 0, 0, 0, 0, 0, 0],
     [0, 0, 0, 0, 0, 0, 0, 0],
     [0, 0, 0, 0, 0, 0, 0, 0],
     [0, 0, 0, 0, 0, 0, 0, 0],
     [0, 0, 0, 0, 0, 0, 0, 0],
     [0, 0, 0, 0, 0, 0, 0, 0],
     [0, 0, 0, 0, 0, 0, 0, 0],
     [0, 0, 0, 0, 0, 0, 0, 0],
     [0, 0, 0, 0, 0, 0, 0, 0],
     [0, 0, 0, 0, 0, 0, 0, 0],
     [0, 0, 0, 0, 0, 0, 0, 0],
     [0, 0, 0, 0, 0, 0, 0, 0],
     [0, 0, 0, 0, 0, 0, 0, 0],
     [0, 0, 0, 0, 0, 0, 0, 0],
     [0, 0, 0, 0, 0, 0, 0, 0],
     [0, 0, 0, 0, 0, 0, 0, 0],
     [0, 0, 0, 0, 0, 0, 0, 0],
     [0, 0, 0, 0, 0, 0, 0, 0],
     [0, 0, 0, 0, 0, 0, 0, 0],
     [0, 0, 0, 0, 0, 0, 0, 0],
     [0, 0, 0, 0, 0, 0, 0, 0],
     [0, 0, 0, 0, 0, 0, 0, 0],
     [0, 0, 0, 0, 0, 0, 0, 0],
     [0, 0, 0, 0, 0, 0, 0, 0],
     [0, 0, 0, 0, 0, 0, 0, 0],
     [0, 0, 0, 0, 0, 0, 0, 0],
     [0, 0, 0, 0, 0, 0, 0, 0],
     [0, 0, 0, 0, 0, 0, 0, 0],
     [0, 0, 0, 0, 0, 0, 0, 0],
     [0, 0, 0, 0, 0, 0, 35, 0],
     [1, 1, 1, 1, 1, 1, 1, 1],
     [0, 0, 0, 3, 0, 0, 0, 1],
     [1, 1, 1, 1, 0, 0, 0, 0],
     [0, 0, 0, 5, 5, 50, 47, 1],
     [1, 1, 1, 0, 0, 0, 0, 0],
     [11, 68, 65, 13, 13, 13, 13, 13],
     [0, 0, 71, 15, 143, 131, 0, 17],
     [17, 15, 0, 0, 83, 187, 147, 0],
     [0, 0, 0, 0, 0, 0, 86, 0],
     [0, 135, 74, 208, 203, 17, 17, 0],
     [0, 0, 0, 0, 1, 0, 0, 139],
     [77, 218, 213, 0, 0, 15, 80, 80],
     [1, 0, 0, 183, 308, 303, 0, 0],
     [21, 98, 95, 0, 0, 0, 0, 0],
     [0, 0, 0, 15, 80, 80, 80, 80],
     [80, 80, 1, 0, 0, 179, 298, 293],
     [0, 0, 19, 92, 89, 0, 0, 0],
     [167, 268, 263, 0, 0, 0, 159, 248],
     [243, 0, 163, 258, 253, 0, 0, 155],
     [238, 233, 0, 171, 278, 273, 0, 175],
     [288, 283, 0, 0, 0, 0, 0, 0],
     [0, 0, 0, 0, 0, 0, 0, 0],
     [0, 0, 0, 0, 7, 7, 56, 53],
     [0, 0, 0, 0, 0, 0, 0, 0],
     [0, 0, 0, 0, 0, 0, 0, 0],
     [0, 0, 0, 0, 0, 0, 0, 0],
     [0, 0, 0, 0, 0, 0, 0, 0],
     [0, 0, 0, 0, 0, 0, 0, 0],
     [0, 0, 0, 0, 0, 0, 0, 0],
     [0, 0, 0, 0, 0, 0, 0, 0],
     [0, 0, 0, 0, 0, 0, 0, 0],
     [0, 0, 9, 9, 62, 59, 0, 0],
     [0, 0, 0, 0, 0, 0, 0, 0],
     [0, 0, 0, 0, 0, 0, 0, 0],
     [0, 0, 0, 0, 0, 0, 0, 0],
     [0, 0, 0, 0, 0, 0, 0, 0],
     [0, 0, 0, 0, 0, 0, 0, 0],
     [0, 0, 0, 0, 0, 0, 0, 0],
     [0, 0, 0, 0, 0, 0, 0, 0],
     [0, 0, 0, 0, 0, 0, 0, 0],
     [0, 0, 0, 0, 0, 0, 0, 0],
     [0, 0, 0, 0, 0, 0, 0, 0],
     [0, 0, 0, 0, 0, 0, 0, 0],
     [0, 0, 0, 0, 0, 0, 0, 0],
     [5, 5, 47, 1, 1, 1, 1, 0],
     [0, 0, 0, 0, 0, 0, 0, 0],
     [13, 13, 13, 13, 13, 13, 0, 0],
     [0, 71, 15, 131, 0, 0, 15, 0],
     [17, 17, 15, 0, 0, 0, 17, 17],
     [15, 0, 0, 83, 147, 0, 0, 0],
     [0, 0, 0, 0, 0, 0, 0, 0],
     [0, 0, 0, 0, 0, 135, 74, 203],
     [17, 17, 0, 0, 0, 0, 0, 139],
     [77, 213, 0, 0, 15, 80, 80, 0],
     [0, 183, 303, 0, 0, 0, 0, 0],
     [0, 0, 0, 0, 15, 80, 80, 80],
     [80, 80, 80, 0, 0, 179, 293, 0],
     [0, 0, 0, 167, 263, 0, 0, 0],
     [159, 243, 0, 163, 253, 0, 0, 155],
     [233, 0, 171, 273, 0, 175, 283, 0],
     [0, 0, 0, 0, 0, 0, 0, 0],
     [0, 0, 0, 0, 0, 7, 7, 53],
     [0, 0, 0, 0, 0, 0, 38, 0],
     [0, 0, 107, 107, 107, 0, 3, 44],
     [13, 13, 0, 71, 15, 17, 17, 0],
     [0, 83, 0, 0, 0, 0, 0, 0],
     [0, 0, 0, 0, 0, 0, 0, 15],
     [80, 80, 80, 0, 0, 151, 228, 0],
     [0, 0, 0, 0, 0, 0, 0, 0],
     [23, 23, 0, 23, 0, 0, 0, 0],
     [0, 0, 0, 0, 0, 0, 0, 0]]"

definition sup_trans_actions_2 :: "int list list" where
  "sup_trans_actions_2 =
    [[0, 0, 23, 23, 0, 41, 104, 0],
     [0, 0, 0, 0, 0, 0, 0, 0],
     [0, 0, 0, 0, 0, 0, 0, 0],
     [0, 0, 0, 0, 0, 0, 0, 0],
     [0, 0, 0, 0, 0, 0, 0, 0],
     [0, 0, 0, 0, 0, 0, 0, 0],
     [0, 0, 0, 0, 0, 0, 0, 0],
     [0, 0, 0, 0, 0, 0, 0, 0],
     [0, 0, 0, 0, 0, 0, 0, 0],
     [0, 0, 0, 0, 0, 0, 0, 0],
     [0, 0, 0, 0, 0, 0, 0, 0],
     [0, 0, 0, 0, 0, 0, 0, 0],
     [0, 0, 0, 0, 0, 0, 0, 0],
     [0, 0, 0, 0, 0, 0, 0, 0],
     [0, 0, 0, 0, 0, 0, 0, 0],
     [0, 0, 0, 0, 0, 0, 0, 0],
     [0, 0, 0, 0, 0, 0, 0, 0],
     [0, 0, 0, 0, 0, 0, 0, 0],
     [0, 0, 0, 0, 0, 0, 0, 0],
     [0, 0, 0, 0, 0, 0, 0, 0],
     [0, 0, 0, 0, 0, 0, 0, 0],
     [0, 0, 0, 0, 0, 0, 0, 0],
     [0, 0, 0, 0, 0, 0, 0, 0],
     [0, 0, 0, 0, 0, 0, 0, 0],
     [0, 0, 0, 0, 0, 0, 0, 0],
     [0, 0, 0, 0, 0, 0, 0, 0],
     [0, 0, 0, 0, 0, 0, 0, 0],
     [0, 0, 0, 0, 0, 0, 0, 0],
     [0, 0, 0, 0, 0, 0, 0, 0],
     [0, 0, 0, 0, 0, 0, 0, 0],
     [0, 0, 0, 0, 0, 0, 0, 0],
     [0, 0, 0, 0, 0, 0, 0, 0],
     [0, 0, 0, 0, 0, 0, 0, 0],
     [0, 0, 0, 0, 0, 0, 0, 0],
     [0, 0, 0, 0, 0, 0, 0, 0],
     [0, 0, 0, 0, 0, 0, 0, 0],
     [0, 0, 0, 0, 0, 0, 0, 0],
     [0, 0, 0, 0, 0, 0, 0, 0],
     [0, 0, 0, 0, 0, 0, 0, 0],
     [0, 0, 0, 0, 0, 0, 0, 0],
     [0, 0, 0, 0, 0, 0, 0, 0],
     [0, 0, 0, 0, 0, 0, 0, 0],
     [0, 0, 0, 0, 0, 0, 0, 0],
     [0, 0, 0, 0, 0, 0, 0, 0],
     [0, 0, 0, 0, 0, 0, 0, 0],
     [0, 0, 0, 0, 0, 0, 0, 0],
     [0, 0, 0, 0, 0, 0, 0, 0],
     [0, 0, 0, 0, 0, 0, 0, 0],
     [0, 0, 0, 0, 0, 0, 0, 0],
     [0, 0, 0, 0, 0, 0, 0, 0],
     [0, 0, 0, 0, 0, 0, 0, 0],
     [0, 0, 0, 0, 0, 0, 0, 0],
     [0, 0, 0, 0, 0, 0, 0, 0],
     [0, 0, 0, 0, 0, 0, 35, 0],
     [1, 1, 1, 1, 1, 1, 1, 1],
     [0, 0, 0, 3, 0, 0, 0, 1],
     [1, 1, 1, 1, 0, 0, 0, 0],
     [0, 115, 0, 0, 5, 5, 47, 1],
     [1, 1, 1, 0, 0, 0, 0, 0],
     [127, 11, 65, 13, 13, 13, 13, 13],
     [223, 0, 0, 71, 15, 131, 0, 17],
     [17, 15, 313, 0, 0, 83, 147, 0],
     [0, 0, 0, 0, 191, 0, 0, 0],
     [0, 318, 135, 74, 203, 17, 17, 0],
     [0, 0, 0, 0, 1, 0, 0, 324],
     [139, 77, 213, 0, 0, 15, 80, 80],
     [1, 378, 0, 0, 183, 303, 0, 199],
     [0, 21, 95, 0, 0, 0, 0, 0],
     [0, 0, 0, 15, 80, 80, 80, 80],
     [80, 80, 1, 372, 0, 0, 179, 293],
     [0, 195, 0, 19, 89, 0, 0, 0],
     [354, 167, 263, 0, 0, 0, 342, 159],
     [243, 0, 348, 163, 253, 0, 0, 336],
     [155, 233, 0, 360, 171, 273, 0, 366],
     [175, 283, 0, 0, 0, 0, 0, 0],
     [0, 0, 0, 0, 0, 0, 0, 0],
     [0, 0, 0, 0, 119, 7, 7, 53],
     [0, 0, 0, 0, 0, 0, 0, 0],
     [0, 0, 0, 0, 0, 0, 0, 0],
     [0, 0, 0, 0, 0, 0, 0, 0],
     [0, 0, 0, 0, 0, 0, 0, 0],
     [0, 0, 0, 0, 0, 0, 0, 0],
     [0, 0, 0, 0, 0, 0, 0, 0],
     [0, 0, 0, 0, 0, 0, 0, 0],
     [0, 0, 0, 0, 0, 0, 0, 0],
     [0, 0, 123, 9, 9, 59, 0, 0],
     [0, 0, 0, 0, 0, 0, 0, 0],
     [0, 0, 0, 0, 0, 0, 0, 0],
     [0, 0, 0, 0, 0, 0, 0, 0],
     [0, 0, 0, 0, 0, 0, 0, 0],
     [0, 0, 0, 0, 0, 0, 0, 0],
     [0, 0, 0, 0, 0, 0, 0, 0],
     [0, 0, 0, 0, 0, 0, 0, 0],
     [0, 0, 0, 0, 0, 0, 0, 0],
     [0, 0, 0, 0, 0, 0, 0, 0],
     [0, 0, 0, 0, 0, 0, 0, 0],
     [0, 0, 0, 0, 0, 0, 0, 0],
     [0, 0, 0, 0, 0, 0, 0, 0],
     [5, 5, 47, 1, 1, 1, 1, 0],
     [0, 0, 0, 0, 0, 0, 0, 0],
     [13, 13, 13, 13, 13, 13, 0, 0],
     [0, 71, 15, 131, 0, 0, 15, 0],
     [17, 17, 15, 0, 0, 0, 17, 17],
     [15, 0, 0, 83, 147, 0, 0, 0],
     [0, 0, 0, 0, 0, 0, 0, 0],
     [0, 0, 0, 0, 0, 135, 74, 203],
     [17, 17, 0, 0, 0, 0, 0, 139],
     [77, 213, 0, 0, 15, 80, 80, 0],
     [0, 183, 303, 0, 0, 0, 0, 0],
     [0, 0, 0, 0, 15, 80, 80, 80],
     [80, 80, 80, 0, 0, 179, 293, 0],
     [0, 0, 0, 167, 263, 0, 0, 0],
     [159, 243, 0, 163, 253, 0, 0, 155],
     [233, 0, 171, 273, 0, 175, 283, 0],
     [0, 0, 0, 0, 0, 0, 0, 0],
     [0, 0, 0, 0, 0, 7, 7, 53],
     [0, 0, 0, 0, 0, 0, 38, 0],
     [0, 0, 107, 107, 107, 111, 0, 3],
     [13, 13, 0, 71, 15, 17, 17, 0],
     [0, 83, 0, 0, 0, 0, 0, 0],
     [0, 0, 0, 0, 0, 0, 0, 15],
     [80, 80, 80, 0, 0, 330, 151, 0],
     [0, 0, 0, 0, 0, 0, 0, 0],
     [0, 41, 25, 25, 0, 0, 0, 0],
     [0, 25, 0, 0, 0, 0, 0, 0],
     [0, 0, 0, 0, 0, 0, 0, 0],
     [0, 0, 0, 0, 0, 0, 0, 0],
     [0, 0, 0, 0, 0, 0, 0, 0],
     [0, 0, 0, 0, 0, 0, 0, 0],
     [0, 0, 0, 0, 0, 0, 0, 0],
     [0, 0, 0, 0, 0, 0, 0, 0],
     [0, 0, 0, 0, 0, 0, 0, 0],
     [0, 0, 0, 0, 0, 0, 0, 0],
     [0, 0, 0, 0, 0, 0, 0, 0],
     [0, 0, 0, 0, 0, 0, 0, 0],
     [0, 0, 0, 0, 0, 0, 0, 0],
     [0, 0, 0, 0, 0, 0, 0, 0],
     [0, 0, 0, 0, 0, 0, 0, 0],
     [0, 0, 0, 0, 0, 0, 0, 0],
     [0, 0, 0, 0, 0, 0, 0, 0],
     [0, 0, 0, 0, 0, 0, 0, 0],
     [0, 0, 0, 0, 0, 0, 0, 0],
     [0, 0, 0, 0, 0, 0, 0, 0],
     [0, 0, 0, 0, 0, 0, 0, 0],
     [0, 0, 0, 0, 0, 0, 0, 0],
     [0, 0, 0, 0, 0, 0, 0, 0],
     [0, 0, 0, 0, 0, 0, 0, 0],
     [0, 0, 0, 0, 0, 0, 0, 0],
     [0, 0, 0, 0, 0, 0, 0, 0],
     [0, 0, 0, 0, 0, 0, 0, 0]]"

definition sup_trans_actions_3 :: "int list list" where
  "sup_trans_actions_3 =
    [[0, 0, 0, 0, 0, 0, 0, 0],
     [0, 0, 0, 0, 0, 0, 0, 0],
     [0, 0, 0, 0, 0, 0, 0, 0],
     [0, 0, 0, 0, 0, 0, 0, 0],
     [0, 0, 0, 0, 0, 0, 0, 0],
     [0, 0, 0, 0, 0, 0, 0, 0],
     [0, 0, 0, 0, 0, 0, 0, 0],
     [0, 0, 0, 0, 0, 0, 0, 0],
     [0, 0, 0, 0, 0, 0, 0, 0],
     [0, 0, 0, 0, 0, 0, 0, 0],
     [0, 0, 0, 0, 0, 0, 0, 0],
     [0, 0, 0, 0, 0, 0, 0, 0],
     [0, 0, 0, 0, 0, 0, 0, 0],
     [0, 0, 0, 0, 0, 0, 0, 0],
     [0, 0, 0, 0, 0, 0, 0, 0],
     [0, 0, 0, 0, 0, 0, 0, 0],
     [0, 0, 0, 0, 0, 0, 0, 0],
     [0, 0, 0, 0, 0, 0, 0, 0],
     [0, 0, 0, 0, 0, 0, 0, 0],
     [0, 0, 0, 0, 0, 0, 0, 0],
     [0, 0, 0, 0, 0, 0, 0, 0],
     [0, 0, 0, 0, 0, 0, 0, 0],
     [0, 0, 0, 0, 0, 0, 0, 0],
     [0, 0, 0, 0, 0, 0, 0, 0],
     [0, 0, 0, 0, 0, 0, 0, 0],
     [0, 0, 0, 0, 0, 0, 0, 0],
     [0, 0, 0, 0, 35, 0, 1, 1],
     [1, 1, 1, 1, 1, 1, 0, 0],
     [0, 3, 0, 0, 0, 1, 1, 1],
     [1, 1, 0, 0, 0, 0, 0, 50],
     [50, 0, 0, 5, 50, 1, 1, 1],
     [1, 0, 0, 0, 0, 0, 68, 68],
     [68, 0, 0, 0, 0, 0, 0, 0],
     [0, 0, 0, 0, 0, 0, 0, 0],
     [0, 0, 0, 56, 56, 7, 56, 0],
     [0, 0, 0, 0, 0, 0, 0, 0],
     [0, 0, 0, 0, 0, 0, 0, 0],
     [0, 0, 0, 0, 0, 0, 0, 0],
     [0, 0, 0, 0, 0, 0, 0, 0],
     [0, 0, 0, 0, 0, 0, 0, 0],
     [0, 0, 0, 0, 0, 0, 0, 0],
     [0, 0, 0, 0, 0, 0, 0, 0],
     [0, 0, 0, 0, 0, 0, 0, 0],
     [0, 62, 62, 9, 62, 0, 0, 0],
     [0, 0, 0, 0, 0, 0, 0, 0],
     [0, 0, 0, 0, 0, 0, 0, 0],
     [0, 0, 0, 0, 0, 0, 0, 0],
     [0, 0, 0, 0, 0, 0, 0, 0],
     [0, 0, 0, 0, 0, 0, 0, 0],
     [0, 0, 0, 0, 0, 0, 0, 0],
     [0, 0, 0, 0, 0, 0, 0, 0],
     [0, 0, 0, 0, 0, 0, 0, 0],
     [0, 0, 0, 0, 0, 0, 0, 0],
     [0, 0, 0, 0, 0, 0, 0, 0],
     [0, 0, 0, 0, 0, 0, 0, 0],
     [0, 0, 0, 0, 0, 0, 0, 5],
     [1, 1, 1, 1, 0, 0, 0, 0],
     [0, 0, 0, 0, 0, 0, 0, 0],
     [0, 0, 0, 0, 0, 0, 0, 0],
     [0, 0, 0, 7, 0, 0, 0, 0],
     [0, 0, 38, 0, 0, 0, 107, 107],
     [107, 44, 44, 0, 44, 0, 0, 0],
     [0, 41, 0, 0, 0, 0, 0, 25],
     [0, 0, 0, 0, 0, 0, 0, 0],
     [0, 0, 0, 0, 0, 0, 0, 0],
     [0, 0, 0, 0, 0, 0, 0, 0],
     [0, 0, 0, 0, 0, 0, 0, 0],
     [0, 0, 0, 0, 0, 0, 0, 0],
     [0, 0, 0, 0, 0, 0, 0, 0],
     [0, 0, 0, 0, 0, 0, 0, 0],
     [0, 0, 0, 0, 0, 0, 0, 0],
     [0, 0, 0, 0, 0, 0, 0, 0],
     [0, 0, 0, 0, 0, 0, 0, 0],
     [0, 0, 0, 0, 0, 0, 0, 0],
     [0, 0, 0, 0, 0, 0, 0, 0],
     [0, 0, 0, 0, 0, 0, 0, 0],
     [0, 0, 0, 0, 0, 0, 0, 0],
     [0, 0, 0, 0, 0, 0, 0, 0],
     [0, 0, 0, 0, 0, 0, 0, 0],
     [0, 0, 0, 0, 0, 0, 0, 0],
     [0, 0, 0, 0, 0, 0, 0, 0],
     [0, 0, 0, 0, 0, 0, 0, 0],
     [0, 0, 0, 0, 0, 0, 0, 0],
     [0, 0, 0, 0, 0, 0, 0, 0],
     [0, 0, 0, 0, 0, 0, 0, 0],
     [0, 0, 0, 0, 0, 0, 0, 0],
     [0, 0, 0, 0, 0, 0, 0, 0],
     [0, 0, 0, 0, 0, 0, 0, 0],
     [0, 0, 0, 0, 25, 0, 0, 0],
     [0, 0, 0, 0, 0, 0, 0, 0],
     [0, 0, 0, 0, 0, 0, 0, 0],
     [0, 0, 0, 0, 25, 0, 0, 0],
     [0, 0, 0, 0, 0, 0, 0, 0],
     [0, 0, 0, 0, 0, 0, 0, 0],
     [0, 0, 0, 0, 0, 0, 0, 0],
     [0, 0, 0, 0, 0, 0, 0, 0],
     [0, 0, 0, 0, 0, 0, 0, 0],
     [0, 0, 0, 0, 0, 0, 0, 0],
     [0, 0, 0, 0, 0, 0, 0, 0],
     [0, 0, 0, 0, 0, 0, 0, 0],
     [0, 0, 0, 0, 0, 0, 0, 0],
     [0, 0, 0, 0, 0, 0, 0, 0],
     [0, 0, 0, 0, 0, 0, 0, 0],
     [0, 0, 0, 0, 0, 0, 0, 0],
     [0, 0, 0, 0, 0, 0, 0, 0],
     [0, 0, 0, 0, 0, 0, 0, 0],
     [0, 0, 0, 0, 0, 0, 0, 0],
     [0, 0, 0, 0, 0, 0, 0, 0],
     [0, 0, 0, 0, 0, 0, 0, 0],
     [0, 0, 0, 0, 0, 0, 0, 0],
     [0, 0, 0, 0, 0, 0, 0, 0],
     [0, 0, 0, 0, 0, 0, 0, 0],
     [0, 0, 0, 0, 0, 0, 0, 0],
     [0, 0, 0, 0, 0, 0, 0, 0],
     [0, 0, 0, 0, 0, 0, 0, 0],
     [0, 0, 0, 0, 0, 0, 0, 0],
     [0, 0, 0, 0, 0, 0, 0, 0],
     [0, 0, 0, 0, 0, 0, 0, 0],
     [0, 0, 0, 0, 35, 0, 1, 1],
     [1, 1, 1, 1, 1, 1, 0, 0],
     [0, 3, 0, 0, 0, 1, 1, 1],
     [1, 1, 0, 0, 0, 0, 0, 0],
     [0, 5, 50, 1, 1, 1, 1, 0],
     [0, 0, 0, 0, 68, 13, 13, 13],
     [13, 13, 0, 0, 71, 15, 0, 17],
     [17, 17, 0, 0, 83, 0, 0, 0],
     [0, 0, 0, 0, 0, 0, 0, 0],
     [0, 0, 0, 0, 0, 0, 0, 0],
     [0, 0, 0, 0, 0, 0, 0, 0],
     [0, 0, 0, 0, 0, 0, 0, 0],
     [0, 0, 0, 0, 0, 0, 0, 0],
     [0, 0, 0, 0, 0, 0, 0, 0],
     [0, 0, 0, 0, 0, 0, 0, 0],
     [0, 0, 0, 0, 0, 0, 0, 0],
     [0, 0, 0, 0, 0, 0, 0, 0],
     [0, 0, 0, 0, 0, 0, 0, 0],
     [0, 0, 0, 0, 0, 0, 0, 0],
     [0, 0, 0, 0, 0, 0, 0, 0],
     [0, 0, 0, 0, 0, 0, 0, 0],
     [0, 0, 0, 0, 0, 0, 0, 0],
     [0, 0, 0, 0, 0, 0, 0, 0],
     [0, 0, 0, 0, 0, 0, 0, 0],
     [0, 0, 0, 0, 0, 0, 0, 0],
     [0, 0, 0, 0, 0, 0, 0, 0],
     [0, 0, 0, 0, 0, 0, 135, 74],
     [17, 17, 0, 0, 0, 0, 0, 0],
     [0, 139, 77, 0, 0, 15, 80, 80],
     [1, 0, 0, 183, 0, 0, 21, 0],
     [0, 0, 0, 0, 0, 0, 0, 15],
     [80, 80, 80, 80, 80, 80, 1, 0]]"

definition sup_trans_actions_4 :: "int list list" where
  "sup_trans_actions_4 =
    [[0, 179, 0, 0, 19, 0, 0, 0],
     [167, 0, 0, 0, 159, 0, 163, 0],
     [0, 155, 0, 171, 0, 175, 0, 0],
     [0, 0, 0, 0, 0, 0, 0, 0],
     [0, 0, 0, 0, 0, 0, 0, 0],
     [7, 56, 0, 0, 0, 0, 0, 0],
     [0, 0, 0, 0, 0, 0, 0, 0],
     [0, 0, 0, 0, 0, 0, 0, 0],
     [0, 0, 0, 0, 0, 0, 0, 0],
     [0, 0, 0, 0, 0, 0, 0, 0],
     [0, 0, 0, 0, 0, 0, 0, 0],
     [0, 0, 0, 0, 0, 0, 0, 0],
     [0, 0, 0, 0, 0, 0, 0, 0],
     [0, 0, 0, 0, 9, 62, 0, 0],
     [0, 0, 0, 0, 0, 0, 0, 0],
     [0, 0, 0, 0, 0, 0, 0, 0],
     [0, 0, 0, 0, 0, 0, 0, 0],
     [0, 0, 0, 0, 0, 0, 0, 0],
     [0, 0, 0, 0, 0, 0, 0, 0],
     [0, 0, 0, 0, 0, 0, 0, 0],
     [0, 0, 0, 0, 0, 0, 0, 0],
     [0, 0, 0, 0, 0, 0, 0, 0],
     [0, 0, 0, 0, 0, 0, 0, 0],
     [0, 0, 0, 0, 0, 0, 0, 0],
     [0, 0, 0, 0, 0, 0, 0, 0],
     [0, 0, 0, 0, 0, 0, 0, 0],
     [5, 50, 1, 1, 1, 1, 0, 0],
     [0, 0, 0, 0, 0, 0, 0, 13],
     [13, 13, 13, 13, 0, 0, 71, 15],
     [0, 17, 17, 0, 0, 83, 0, 0],
     [135, 74, 17, 17, 0, 0, 0, 0],
     [0, 139, 77, 0, 0, 15, 80, 80],
     [0, 0, 183, 0, 0, 0, 0, 0],
     [0, 0, 0, 0, 15, 80, 80, 80],
     [80, 80, 80, 0, 0, 179, 0, 0],
     [0, 0, 167, 0, 0, 0, 159, 0],
     [163, 0, 0, 155, 0, 171, 0, 175],
     [0, 0, 0, 0, 0, 0, 0, 0],
     [0, 0, 0, 0, 0, 0, 7, 56],
     [0, 0, 0, 0, 0, 0, 38, 0],
     [0, 0, 107, 107, 107, 0, 44, 13],
     [13, 0, 71, 15, 17, 17, 17, 0],
     [0, 83, 0, 0, 0, 0, 0, 0],
     [0, 0, 0, 0, 0, 0, 0, 0],
     [0, 0, 0, 0, 0, 0, 0, 0],
     [0, 0, 0, 0, 0, 0, 0, 0],
     [0, 0, 0, 0, 0, 0, 0, 0],
     [0, 0, 0, 0, 0, 0, 0, 0],
     [0, 0, 0, 0, 0, 0, 0, 0],
     [0, 0, 0, 0, 0, 0, 0, 0],
     [0, 0, 0, 0, 0, 0, 0, 0],
     [0, 0, 0, 0, 0, 0, 0, 0],
     [0, 0, 0, 0, 0, 0, 0, 0],
     [0, 0, 0, 0, 0, 0, 0, 0],
     [0, 0, 0, 0, 0, 0, 0, 0],
     [0, 0, 0, 0, 0, 0, 0, 0],
     [0, 0, 0, 0, 0, 0, 0, 0],
     [0, 0, 0, 0, 0, 0, 0, 0],
     [0, 0, 0, 0, 0, 0, 0, 0],
     [0, 0, 0, 0, 0, 0, 0, 0],
     [0, 0, 0, 0, 0, 0, 0, 0],
     [0, 0, 0, 0, 0, 0, 0, 0],
     [0, 0, 0, 0, 0, 0, 15, 80],
     [80, 80, 0, 0, 151, 0, 0, 0],
     [0, 0, 0, 0, 0, 0]]"

definition sup_trans_actions :: "int list" where
  "sup_trans_actions =
     concat sup_trans_actions_1 @ concat sup_trans_actions_2 @ concat sup_trans_actions_3 @
     concat sup_trans_actions_4"

text \<open>
  The actions of the transitions: whether they end the URI, by where they are in \<open>actions\<close>.
\<close>

datatype uri_acts = No_acts | Goes_on | Ends

definition sup_kind_1 :: "int \<Rightarrow> uri_acts" where
  "sup_kind_1 a =
     (if a = 0 then Goes_on
      else if a = 1 then Goes_on
      else if a = 3 then Goes_on
      else if a = 5 then Goes_on
      else if a = 7 then Goes_on
      else if a = 9 then Goes_on
      else if a = 11 then Goes_on
      else if a = 13 then Goes_on
      else if a = 15 then Goes_on
      else if a = 17 then Goes_on
      else if a = 19 then Goes_on
      else if a = 21 then Goes_on
      else if a = 23 then Goes_on
      else if a = 25 then Goes_on
      else if a = 27 then Ends
      else if a = 29 then Goes_on
      else No_acts)"

definition sup_kind_2 :: "int \<Rightarrow> uri_acts" where
  "sup_kind_2 a =
     (if a = 32 then Goes_on
      else if a = 35 then Goes_on
      else if a = 38 then Goes_on
      else if a = 41 then Goes_on
      else if a = 44 then Goes_on
      else if a = 47 then Goes_on
      else if a = 50 then Goes_on
      else if a = 53 then Goes_on
      else if a = 56 then Goes_on
      else if a = 59 then Goes_on
      else if a = 62 then Goes_on
      else if a = 65 then Goes_on
      else if a = 68 then Goes_on
      else if a = 71 then Goes_on
      else if a = 74 then Goes_on
      else if a = 77 then Goes_on
      else No_acts)"

definition sup_kind_3 :: "int \<Rightarrow> uri_acts" where
  "sup_kind_3 a =
     (if a = 80 then Goes_on
      else if a = 83 then Goes_on
      else if a = 86 then Goes_on
      else if a = 89 then Goes_on
      else if a = 92 then Goes_on
      else if a = 95 then Goes_on
      else if a = 98 then Goes_on
      else if a = 101 then Goes_on
      else if a = 104 then Ends
      else if a = 107 then Goes_on
      else if a = 111 then Ends
      else if a = 115 then Ends
      else if a = 119 then Ends
      else if a = 123 then Ends
      else if a = 127 then Ends
      else if a = 131 then Goes_on
      else No_acts)"

definition sup_kind_4 :: "int \<Rightarrow> uri_acts" where
  "sup_kind_4 a =
     (if a = 135 then Goes_on
      else if a = 139 then Goes_on
      else if a = 143 then Goes_on
      else if a = 147 then Goes_on
      else if a = 151 then Goes_on
      else if a = 155 then Goes_on
      else if a = 159 then Goes_on
      else if a = 163 then Goes_on
      else if a = 167 then Goes_on
      else if a = 171 then Goes_on
      else if a = 175 then Goes_on
      else if a = 179 then Goes_on
      else if a = 183 then Goes_on
      else if a = 187 then Goes_on
      else if a = 191 then Ends
      else if a = 195 then Ends
      else No_acts)"

definition sup_kind_5 :: "int \<Rightarrow> uri_acts" where
  "sup_kind_5 a =
     (if a = 199 then Ends
      else if a = 203 then Goes_on
      else if a = 208 then Goes_on
      else if a = 213 then Goes_on
      else if a = 218 then Goes_on
      else if a = 223 then Ends
      else if a = 228 then Goes_on
      else if a = 233 then Goes_on
      else if a = 238 then Goes_on
      else if a = 243 then Goes_on
      else if a = 248 then Goes_on
      else if a = 253 then Goes_on
      else if a = 258 then Goes_on
      else if a = 263 then Goes_on
      else if a = 268 then Goes_on
      else if a = 273 then Goes_on
      else No_acts)"

definition sup_kind_6 :: "int \<Rightarrow> uri_acts" where
  "sup_kind_6 a =
     (if a = 278 then Goes_on
      else if a = 283 then Goes_on
      else if a = 288 then Goes_on
      else if a = 293 then Goes_on
      else if a = 298 then Goes_on
      else if a = 303 then Goes_on
      else if a = 308 then Goes_on
      else if a = 313 then Ends
      else if a = 318 then Ends
      else if a = 324 then Ends
      else if a = 330 then Ends
      else if a = 336 then Ends
      else if a = 342 then Ends
      else if a = 348 then Ends
      else if a = 354 then Ends
      else if a = 360 then Ends
      else No_acts)"

definition sup_kind_7 :: "int \<Rightarrow> uri_acts" where
  "sup_kind_7 a =
     (if a = 366 then Ends
      else if a = 372 then Ends
      else if a = 378 then Ends
      else No_acts)"

definition sup_kind :: "int \<Rightarrow> uri_acts" where
  "sup_kind a =
     (if a < 135
      then (if a < 32
           then sup_kind_1 a
           else (if a < 80
                then sup_kind_2 a
                else sup_kind_3 a))
      else (if a < 278
           then (if a < 199
                then sup_kind_4 a
                else sup_kind_5 a)
           else (if a < 366
                then sup_kind_6 a
                else sup_kind_7 a)))"

definition sup_trans :: "int \<Rightarrow> int \<Rightarrow> int \<Rightarrow> bool" where
  "sup_trans t q a \<longleftrightarrow> 0 \<le> q \<and> q < 3711 \<and> sup_kind a \<noteq> No_acts \<and> (q = 3710 \<longleftrightarrow> sup_kind a = Ends)"

lemmas sup_trans_defs = sup_trans_def sup_kind_def uri_acts.distinct if_True if_False
  sup_kind_1_def sup_kind_2_def sup_kind_3_def sup_kind_4_def sup_kind_5_def sup_kind_6_def
  sup_kind_7_def

lemma sup_trans_targs_1_trans: "all2 sup_trans 0 1200 (concat sup_trans_targs_1) (concat sup_trans_actions_1)"
  by (simp only: sup_trans_targs_1_def sup_trans_actions_1_def sup_trans_defs row_arith)

lemma sup_trans_targs_2_trans: "all2 sup_trans 1200 2400 (concat sup_trans_targs_2) (concat sup_trans_actions_2)"
  by (simp only: sup_trans_targs_2_def sup_trans_actions_2_def sup_trans_defs row_arith)

lemma sup_trans_targs_3_trans: "all2 sup_trans 2400 3600 (concat sup_trans_targs_3) (concat sup_trans_actions_3)"
  by (simp only: sup_trans_targs_3_def sup_trans_actions_3_def sup_trans_defs row_arith)

lemma sup_trans_targs_4_trans: "all2 sup_trans 3600 4118 (concat sup_trans_targs_4) (concat sup_trans_actions_4)"
  by (simp only: sup_trans_targs_4_def sup_trans_actions_4_def sup_trans_defs row_arith)

lemma sup_trans_targs_trans: "all2 sup_trans 0 4118 sup_trans_targs sup_trans_actions"
  unfolding sup_trans_targs_def sup_trans_actions_def
  by (intro all2_append)
    (rule
      sup_trans_targs_1_trans sup_trans_targs_2_trans sup_trans_targs_3_trans
      sup_trans_targs_4_trans)+

text \<open>The actions themselves.\<close>

definition sup_sequences :: "(int \<times> int list) list" where
  "sup_sequences =
    [(0, []),
     (1, [0]),
     (3, [6]),
     (5, [7]),
     (7, [8]),
     (9, [9]),
     (11, [10]),
     (13, [11]),
     (15, [12]),
     (17, [13]),
     (19, [24]),
     (21, [27]),
     (23, [28]),
     (25, [31]),
     (27, [32]),
     (29, [0, 29]),
     (32, [0, 30]),
     (35, [1, 5]),
     (38, [2, 5]),
     (41, [4, 5]),
     (44, [6, 31]),
     (47, [7, 0]),
     (50, [7, 31]),
     (53, [8, 0]),
     (56, [8, 31]),
     (59, [9, 0]),
     (62, [9, 31]),
     (65, [10, 0]),
     (68, [10, 31]),
     (71, [12, 15]),
     (74, [12, 25]),
     (77, [12, 26]),
     (80, [13, 0]),
     (83, [14, 15]),
     (86, [16, 31]),
     (89, [24, 0]),
     (92, [24, 31]),
     (95, [27, 0]),
     (98, [27, 31]),
     (101, [30, 0]),
     (104, [31, 32]),
     (107, [3, 5, 0]),
     (111, [6, 31, 32]),
     (115, [7, 31, 32]),
     (119, [8, 31, 32]),
     (123, [9, 31, 32]),
     (127, [10, 31, 32]),
     (131, [12, 15, 0]),
     (135, [12, 15, 25]),
     (139, [12, 15, 26]),
     (143, [12, 15, 31]),
     (147, [14, 15, 0]),
     (151, [14, 15, 17]),
     (155, [14, 15, 18]),
     (159, [14, 15, 19]),
     (163, [14, 15, 20]),
     (167, [14, 15, 21]),
     (171, [14, 15, 22]),
     (175, [14, 15, 23]),
     (179, [14, 15, 24]),
     (183, [14, 15, 27]),
     (187, [14, 15, 31]),
     (191, [16, 31, 32]),
     (195, [24, 31, 32]),
     (199, [27, 31, 32]),
     (203, [12, 15, 25, 0]),
     (208, [12, 15, 25, 31]),
     (213, [12, 15, 26, 0]),
     (218, [12, 15, 26, 31]),
     (223, [12, 15, 31, 32]),
     (228, [14, 15, 17, 31]),
     (233, [14, 15, 18, 0]),
     (238, [14, 15, 18, 31]),
     (243, [14, 15, 19, 0]),
     (248, [14, 15, 19, 31]),
     (253, [14, 15, 20, 0]),
     (258, [14, 15, 20, 31]),
     (263, [14, 15, 21, 0]),
     (268, [14, 15, 21, 31]),
     (273, [14, 15, 22, 0]),
     (278, [14, 15, 22, 31]),
     (283, [14, 15, 23, 0]),
     (288, [14, 15, 23, 31]),
     (293, [14, 15, 24, 0]),
     (298, [14, 15, 24, 31]),
     (303, [14, 15, 27, 0]),
     (308, [14, 15, 27, 31]),
     (313, [14, 15, 31, 32]),
     (318, [12, 15, 25, 31, 32]),
     (324, [12, 15, 26, 31, 32]),
     (330, [14, 15, 17, 31, 32]),
     (336, [14, 15, 18, 31, 32]),
     (342, [14, 15, 19, 31, 32]),
     (348, [14, 15, 20, 31, 32]),
     (354, [14, 15, 21, 31, 32]),
     (360, [14, 15, 22, 31, 32]),
     (366, [14, 15, 23, 31, 32]),
     (372, [14, 15, 24, 31, 32]),
     (378, [14, 15, 27, 31, 32])]"

lemma sup_sequences_layout: "layout sup_sequences = sup_actions"
  by (simp only: sup_actions_def sup_actions_1_def sup_sequences_def row_arith)

lemma sup_sequences_laid_out: "laid_out 0 sup_sequences"
  by (simp only: sup_sequences_def row_arith)

lemma sup_kind_1_starts: "sup_kind_1 a \<noteq> No_acts \<Longrightarrow> a \<in> set [0, 1, 3, 5, 7, 9, 11, 13, 15, 17, 19, 21, 23, 25, 27, 29]"
  by (simp add: sup_kind_1_def split: if_splits)

lemma sup_kind_2_starts: "sup_kind_2 a \<noteq> No_acts \<Longrightarrow> a \<in> set [32, 35, 38, 41, 44, 47, 50, 53, 56, 59, 62, 65, 68, 71, 74, 77]"
  by (simp add: sup_kind_2_def split: if_splits)

lemma sup_kind_3_starts: "sup_kind_3 a \<noteq> No_acts \<Longrightarrow> a \<in> set [80, 83, 86, 89, 92, 95, 98, 101, 104, 107, 111, 115, 119, 123, 127, 131]"
  by (simp add: sup_kind_3_def split: if_splits)

lemma sup_kind_4_starts: "sup_kind_4 a \<noteq> No_acts \<Longrightarrow> a \<in> set [135, 139, 143, 147, 151, 155, 159, 163, 167, 171, 175, 179, 183, 187, 191, 195]"
  by (simp add: sup_kind_4_def split: if_splits)

lemma sup_kind_5_starts: "sup_kind_5 a \<noteq> No_acts \<Longrightarrow> a \<in> set [199, 203, 208, 213, 218, 223, 228, 233, 238, 243, 248, 253, 258, 263, 268, 273]"
  by (simp add: sup_kind_5_def split: if_splits)

lemma sup_kind_6_starts: "sup_kind_6 a \<noteq> No_acts \<Longrightarrow> a \<in> set [278, 283, 288, 293, 298, 303, 308, 313, 318, 324, 330, 336, 342, 348, 354, 360]"
  by (simp add: sup_kind_6_def split: if_splits)

lemma sup_kind_7_starts: "sup_kind_7 a \<noteq> No_acts \<Longrightarrow> a \<in> set [366, 372, 378]"
  by (simp add: sup_kind_7_def split: if_splits)

definition sup_starts :: "int list" where
  "sup_starts =
     [0, 1, 3, 5, 7, 9, 11, 13, 15, 17, 19, 21, 23, 25, 27, 29] @
     [32, 35, 38, 41, 44, 47, 50, 53, 56, 59, 62, 65, 68, 71, 74, 77] @
     [80, 83, 86, 89, 92, 95, 98, 101, 104, 107, 111, 115, 119, 123, 127, 131] @
     [135, 139, 143, 147, 151, 155, 159, 163, 167, 171, 175, 179, 183, 187, 191, 195] @
     [199, 203, 208, 213, 218, 223, 228, 233, 238, 243, 248, 253, 258, 263, 268, 273] @
     [278, 283, 288, 293, 298, 303, 308, 313, 318, 324, 330, 336, 342, 348, 354, 360] @
     [366, 372, 378]"

lemma sup_starts_all: "map fst sup_sequences = sup_starts"
  by (simp only: sup_starts_def sup_sequences_def list.map fst_conv append.simps)

lemma sup_kind_starts: "sup_kind a \<noteq> No_acts \<Longrightarrow> a \<in> set sup_starts"
  by (simp only: sup_kind_def sup_starts_def set_append Un_iff split: if_split_asm)
    ((drule
      sup_kind_1_starts sup_kind_2_starts sup_kind_3_starts sup_kind_4_starts sup_kind_5_starts
      sup_kind_6_starts sup_kind_7_starts,
      simp only: simp_thms)+)

end
