(* ===== verification/Sip_Uri_Machine.thy ===== *)
theory Sip_Uri_Machine
  imports Sip_Uri_States Sip_Uri_Cond_Keys Sip_Uri_Keys Sip_Uri_Trans
begin

text \<open>
  The machine of ext/sip_parser/sip_uri_parser.c, all arrays together: no step reads outside them,
  and only a transition to the last state ends the URI.
\<close>

definition sip_uri_machine :: rgl_cond_tables where
  "sip_uri_machine =
     \<lparr>c_offsets = sup_cond_offsets, c_lengths = sup_cond_lengths, c_keys = sup_cond_keys,
      c_spaces = sup_cond_spaces,
      c_machine =
        \<lparr>t_actions = sup_actions, t_key_offsets = sup_key_offsets, t_trans_keys = sup_trans_keys,
         t_single_lengths = sup_single_lengths, t_range_lengths = sup_range_lengths,
         t_index_offsets = sup_index_offsets, t_indicies = sup_indicies,
         t_trans_targs = sup_trans_targs, t_trans_actions = sup_trans_actions\<rparr>\<rparr>"

lemmas sup_fields = sip_uri_machine_def rgl_cond_tables.simps rgl_tables.simps

text \<open>The actions of a transition: 32 is the last one, where there is one.\<close>

fun ends_uri :: "uri_acts \<Rightarrow> int list \<Rightarrow> bool" where
  "ends_uri k [] \<longleftrightarrow> k = Goes_on"
| "ends_uri k (a # as) \<longleftrightarrow> (a = 32 \<and> k = Ends \<and> as = []) \<or> (0 \<le> a \<and> a < 32 \<and> ends_uri k as)"

lemma sup_ends_uri: "list_all (\<lambda>(a, as). ends_uri (sup_kind a) as) sup_sequences"
  by (simp only: sup_sequences_def list.pred_inject case_prod_conv ends_uri.simps sup_trans_defs
      list.distinct row_arith)

lemma sup_kind_acts:
  assumes "sup_kind a \<noteq> No_acts"
  shows "\<exists>as. t0_acts_at (c_machine sip_uri_machine) a = Some as \<and> ends_uri (sup_kind a) as"
proof (cases "a = 0")
  case True
  have "sup_kind 0 = Goes_on" by (simp only: sup_trans_defs row_arith)
  then show ?thesis using True by (simp add: t0_acts_at_def)
next
  case False
  obtain as where as: "(a, as) \<in> set sup_sequences"
    using sup_kind_starts [OF assms] by (auto simp flip: sup_starts_all)
  have "t0_acts_at (c_machine sip_uri_machine) a = Some as"
    by (rule acts_laid_out [OF _ sup_sequences_laid_out as False]) (simp add: sip_uri_machine_def sup_sequences_layout)
  then show ?thesis using sup_ends_uri as by (auto simp: list_all_iff)
qed

lemma ends_uri_codes: "ends_uri k as \<Longrightarrow> list_all (\<lambda>a. 0 \<le> a \<and> a < 33) as \<and> (32 \<in> set as \<longrightarrow> k = Ends)"
  by (induction as) auto

lemma ends_uri_ends: "ends_uri k as \<Longrightarrow> 32 \<in> set as \<longleftrightarrow> k = Ends"
  by (induction as) auto

subsection \<open>Every array is read inside\<close>

lemma sup_state_nth:
  "length sup_cond_offsets = 3711 \<and> length sup_cond_lengths = 3711 \<and> length sup_key_offsets = 3711 \<and>
   length sup_single_lengths = 3711 \<and> length sup_range_lengths = 3711 \<and> length sup_index_offsets = 3711 \<and>
   (\<forall>i < 3711. sup_state (int i) (sup_cond_offsets ! i) (sup_cond_lengths ! i) (sup_key_offsets ! i)
      (sup_single_lengths ! i) (sup_range_lengths ! i) (sup_index_offsets ! i))"
proof -
  note a = all6_nth [OF sup_cond_offsets_state]
  then have "length sup_cond_offsets = 3711" by simp
  then show ?thesis using a by simp
qed

lemma sup_indicies_nth: "length sup_indicies = 47474 \<and> (\<forall>i < 47474. sup_place (int i) (sup_indicies ! i))"
proof -
  note a = all1_nth [OF sup_indicies_place]
  then have "length sup_indicies = 47474" by simp
  then show ?thesis using a by simp
qed

lemma sup_trans_nth:
  "length sup_trans_targs = 4118 \<and> length sup_trans_actions = 4118 \<and>
   (\<forall>i < 4118. sup_trans (int i) (sup_trans_targs ! i) (sup_trans_actions ! i))"
proof -
  note a = all2_nth [OF sup_trans_targs_trans]
  then have "length sup_trans_targs = 4118" by simp
  then show ?thesis using a by simp
qed

lemma sup_codes_inside: "sup_trans t q a \<Longrightarrow> codes_inside (c_machine sip_uri_machine) 33 a"
  using sup_kind_acts [of a] ends_uri_codes by (fastforce simp: codes_inside_def sup_trans_def)

theorem sip_uri_machine_inside: "all_inside sip_uri_machine 3711 33"
proof -
  have q: "state_inside (int (length sup_cond_keys)) (int (length sup_cond_spaces))
      (int (length sup_trans_keys)) (int (length sup_indicies)) q"
    if "q \<in> set (states_of sip_uri_machine)" for q
    using that sup_state_nth sup_indicies_nth sup_trans_keys_length sup_cond_keys_length sup_cond_spaces_length
    by (auto simp: states_of_def sup_fields sup_state_def in_set_conv_nth)
  have "0 \<le> t \<and> t < int (length sup_trans_targs)" if "t \<in> set sup_indicies" for t
    using that sup_indicies_nth sup_trans_nth by (auto simp: in_set_conv_nth sup_place_def)
  moreover have "0 \<le> q \<and> q < 3711" if "q \<in> set sup_trans_targs" for q
    using that sup_trans_nth by (auto simp: in_set_conv_nth sup_trans_def)
  moreover have "codes_inside (c_machine sip_uri_machine) 33 a" if "a \<in> set sup_trans_actions" for a
    using that sup_trans_nth sup_codes_inside by (auto simp: in_set_conv_nth)
  ultimately show ?thesis
    using sup_state_nth sup_trans_nth q by (auto simp: all_inside_def Let_def sup_fields)
qed

theorem sup_step:
  assumes "0 \<le> cs" "cs < 3711"
  shows "\<exists>q as. cond_step sip_uri_machine widen cs c = Some (q, as) \<and> 0 \<le> q \<and> q < 3711 \<and>
    (\<forall>a \<in> set as. 0 \<le> a \<and> a < 33) \<and> (32 \<in> set as \<longleftrightarrow> q = 3710)"
proof -
  obtain place t a q as where s: "cond_step sip_uri_machine widen cs c = Some (q, as)"
    and k: "takes sip_uri_machine cs place t a (q, as)"
    using cond_step_takes [OF sip_uri_machine_inside, of cs widen c] assms by auto
  have t: "sup_trans t q a"
    using k all2_rd [OF sup_trans_targs_trans] by (auto simp: takes_def Let_def sup_fields)
  then have "ends_uri (sup_kind a) as"
    using sup_kind_acts [of a] k by (auto simp: takes_def Let_def sup_trans_def)
  then have "32 \<in> set as \<longleftrightarrow> sup_kind a = Ends" using ends_uri_ends by blast
  then show ?thesis using cond_step_inside [OF sip_uri_machine_inside, of cs widen c] assms s t
    by (auto simp: sup_trans_def)
qed

end
