(* ===== verification/Sip_Uri_Properties.thy ===== *)
theory Sip_Uri_Properties
  imports Sip_Uri_Run Sip_Uri_Machine Sip_Example
begin

text \<open>
  The properties of \<open>parse_uri\<close>.
\<close>

text \<open>The object of a call and the flag the scanner gets.\<close>

definition uri_class :: "ruby_value \<Rightarrow> string" where
  "uri_class allow_name_addr = (if allow_name_addr = Qtrue then cNameAddr else cUri)"

definition calls_for ::
  "rgl_cond_tables \<Rightarrow> pton \<Rightarrow> ntop \<Rightarrow> sip_uri_parser \<Rightarrow> string \<Rightarrow> ruby_value \<Rightarrow> heap \<Rightarrow> sip_call list" where
  "calls_for T pton ntop pr s allow_name_addr h =
     uri_calls T pton ntop pr (h @ [new_robj (uri_class allow_name_addr) Instance]) (s @ [CHR 0x00])
       (length s + 1) (Ref (length h)) (if allow_name_addr = Qtrue then 1 else 0)"

text \<open>
  C16.  What \<open>parse_uri\<close> builds: one new object of the class asked for, with the values that the calls
  of the parser said last, nil where there was none, and a new Hash with the parameters in the order
  in which their names came first, each with its last value, when there are any.  Every object that was
  there before is as it was.  The result is the new object or false.
\<close>

theorem parse_uri_builds:
  assumes "SipMessageParser_Class_parse_uri T pton ntop pr (Str s) allow_name_addr h = Uri_returns r pr' h'"
  defines "C \<equiv> calls_for T pton ntop pr s allow_name_addr h"
  shows "(r = Ref (length h) \<or> r = Imm Qfalse) \<and>
    (\<exists>ob. klass ob = uri_class allow_name_addr \<and>
       (\<forall>x. x \<noteq> ''@params'' \<longrightarrow> ivar_of ob x = Imm (uri_said pton ntop C x)) \<and>
       (case params_said C of
          None \<Rightarrow> h' = h @ [ob] \<and> ivar_of ob ''@params'' = nil
        | Some kvs \<Rightarrow> \<exists>hb. h' = h @ [ob, hb] \<and> body hb = HashB kvs \<and>
            ivar_of ob ''@params'' = Ref (length h + 1)))"
proof -
  let ?h = "h @ [new_robj (uri_class allow_name_addr) Instance]" and ?allow = "if allow_name_addr = Qtrue then 1 else 0"
  obtain k where ex: "sip_uri_parser_execute T pton ntop pr ?h (s @ [CHR 0x00]) (length s + 1) (Ref (length h)) ?allow =
      Some (k, pr', h')" and r: "r = (if k = 0 then Ref (length h) else Imm Qfalse)"
    using assms(1)
    by (auto simp: SipMessageParser_Class_parse_uri_def uri_class_def rb_new_def
        split: if_split_asm option.split_asm)
  have new: "made h (uri_class allow_name_addr) (\<lambda>x. Qnil) None ?h"
    using made_new [of "uri_class allow_name_addr" h] by (simp add: rb_new_def)
  have "made h (uri_class allow_name_addr) (uri_said pton ntop C) (params_said C) h'"
    using made_replay [OF new] uri_execute_replay [OF ex]
    by (simp add: C_def calls_for_def uri_said_def params_said_def)
  then show ?thesis using r by (cases "params_said C") (force simp: made_def)+
qed

text \<open>A machine of two states for the letters m (the mark), u (a user) and x, ended by a null.\<close>

definition user_machine :: rgl_cond_tables where
  "user_machine = \<lparr>
     c_offsets = [0, 0], c_lengths = [0, 0], c_keys = [], c_spaces = [],
     c_machine = \<lparr>
       t_actions = [0, 1, 0, 1, 6, 2, 31, 32], t_key_offsets = [0, 0], t_trans_keys = [0, 109, 117, 120],
       t_single_lengths = [0, 4], t_range_lengths = [0, 0], t_index_offsets = [0, 0],
       t_indicies = [0, 1, 2, 3, 4], t_trans_targs = [1, 1, 1, 1, 0], t_trans_actions = [5, 1, 3, 0, 0]\<rparr>\<rparr>"

lemma user_step:
  "uri_step user_machine n s 1 0 = Some (1, [31, 32])" "uri_step user_machine n s 1 109 = Some (1, [0])"
  "uri_step user_machine n s 1 117 = Some (1, [6])" "uri_step user_machine n s 1 120 = Some (1, [])"
  by (simp_all add: uri_step_def cond_step_def t0_widen_def t0_step_def t0_match_def t0_acts_at_def
      user_machine_def find_single.simps)

lemma user_actions:
  "uri_switch ! 0 = U_mark" "uri_switch ! 6 = U_user" "uri_switch ! 31 = U_write_uri" "uri_switch ! 32 = U_done"
  "length uri_switch = 33"
  by (simp_all add: uri_switch_def)

definition user_parser :: sip_uri_parser where
  "user_parser = \<lparr>u_mark = 0, u_uri_start = 0, u_param_key_start = 0, u_param_key_len = 0,
     u_param_value_start = 0, u_param_value_len = 0, u_scheme = None, u_display_name_quoted = False,
     u_parsed = nil\<rparr>"

lemmas user_simps = user_step user_actions letters_codes mx_unescaped uri_act_def LEN_def chars_def rb_new_def
  new_robj_def rb_ivar_set_def deref_def store_def uri_user_def uri_full_def set_in_uri_def get_uri_object_def
  schar_def user_parser_def sip_uri_parser_reset_def letters_heap_def

lemma user_calls: "calls_for user_machine pton ntop user_parser ''mxu'' Qfalse letters_heap =
  [Uri_user None (''mxu'' @ [CHR 0x00]) 2 None, Uri_full None (''mxu'' @ [CHR 0x00]) 3]"
  by (simp add: user_simps calls_for_def uri_calls_def uri_path_calls_def uri_class_def)

lemma user_run: "\<exists>pr' h'. SipMessageParser_Class_parse_uri user_machine pton ntop user_parser (Str ''mxu'')
  Qfalse letters_heap = Uri_returns (Ref 1) pr' h'"
  by (simp add: user_simps SipMessageParser_Class_parse_uri_def sip_uri_parser_execute_def)

theorem parse_uri_builds_witness:
  "\<exists>pr' h' ob. SipMessageParser_Class_parse_uri user_machine (\<lambda>f s. (0, [])) (\<lambda>f b. None) user_parser
       (Str ''mxu'') Qfalse letters_heap = Uri_returns (Ref 1) pr' h' \<and>
     h' = letters_heap @ [ob] \<and> ivar_of ob ''@user'' = Imm (Str ''mx'') \<and> ivar_of ob ''@uri'' = Imm (Str ''mxu'') \<and>
     ivar_of ob ''@port'' = nil"
proof -
  obtain pr' h' where run: "SipMessageParser_Class_parse_uri user_machine (\<lambda>f s. (0, [])) (\<lambda>f b. None) user_parser
      (Str ''mxu'') Qfalse letters_heap = Uri_returns (Ref 1) pr' h'"
    using user_run by blast
  let ?C = "[Uri_user None (''mxu'' @ [CHR 0x00]) 2 None, Uri_full None (''mxu'' @ [CHR 0x00]) 3]"
  have p: "params_said ?C = None" by (simp add: params_said_def)
  have u: "uri_said (\<lambda>f s. (0, [])) (\<lambda>f b. None) ?C ''@user'' = Str ''mx''"
    "uri_said (\<lambda>f s. (0, [])) (\<lambda>f b. None) ?C ''@uri'' = Str ''mxu''"
    "uri_said (\<lambda>f s. (0, [])) (\<lambda>f b. None) ?C ''@port'' = Qnil"
    by (simp_all add: uri_said_def uri_told_def user_value_def or_nil_def text_of_def mx_unescaped)
  from parse_uri_builds [OF run, unfolded user_calls] p u run show ?thesis by fastforce
qed

text \<open>
  C17.  \<open>parse_uri\<close> with the arrays of sip_uri_parser.c aborts exactly when one of the calls the parser
  makes does not return: no array of the machine is read outside its bounds.
\<close>

theorem parse_uri_stops:
  assumes "CHR 0x00 \<notin> set s"
  shows "SipMessageParser_Class_parse_uri sip_uri_machine pton ntop pr (Str s) allow_name_addr h = Uri_aborts \<longleftrightarrow>
    replay pton ntop nil (calls_for sip_uri_machine pton ntop pr s allow_name_addr h)
      (h @ [new_robj (uri_class allow_name_addr) Instance], Ref (length h)) = None"
proof -
  let ?h = "h @ [new_robj (uri_class allow_name_addr) Instance]" and ?allow = "if allow_name_addr = Qtrue then 1 else 0"
  let ?pr = "sip_uri_parser_reset (pr\<lparr>u_parsed := Ref (length h)\<rparr>)" and ?b = "s @ [CHR 0x00]"
  let ?run = "t0_exec (uri_step sip_uri_machine ?allow) (uri_act pton ntop ?b) 1 0 (take (length s + 1) ?b) (?pr, ?h)"
  let ?w = "take (length s + 1) ?b" and ?C = "calls_for sip_uri_machine pton ntop pr s allow_name_addr h"
  have a: "after pton ntop (?h, Ref (length h)) [] ?pr ?h" by (simp add: after_def sip_uri_parser_reset_def)
  have step: "\<forall>d cs c. 0 \<le> cs \<longrightarrow> cs < 3711 \<longrightarrow>
      (\<exists>q as. uri_step sip_uri_machine ?allow d cs c = Some (q, as) \<and> 0 \<le> q \<and> q < 3711)"
    using sup_step unfolding uri_step_def by blast
  have calls: "uri_path_calls (uri_step sip_uri_machine ?allow) pton ntop ?b 1 0 ?w ?pr ?h = ?C"
    by (simp only: calls_for_def uri_calls_def)
  have run: "SipMessageParser_Class_parse_uri sip_uri_machine pton ntop pr (Str s) allow_name_addr h = Uri_aborts
      \<longleftrightarrow> ?run = None"
    using assms
    by (cases ?run) (auto simp: SipMessageParser_Class_parse_uri_def sip_uri_parser_execute_def uri_class_def rb_new_def)
  have "0 \<le> (1 :: int)" "(1 :: int) < 3711" by simp_all
  from uri_exec_after [OF a this step, where buffer = ?b and p = 0 and w = ?w]
  show ?thesis unfolding calls run
  proof (elim disjE exE conjE)
    fix cs q pr' h'
    assume "?run = Some (cs, q, pr', h')" "after pton ntop (?h, Ref (length h)) ([] @ ?C) pr' h'"
    then show "?run = None \<longleftrightarrow> replay pton ntop nil ?C (?h, Ref (length h)) = None"
      unfolding after_def append_Nil by (metis option.distinct(1))
  next
    assume "?run = None" "replay pton ntop nil ([] @ ?C) (?h, Ref (length h)) = None"
    then show "?run = None \<longleftrightarrow> replay pton ntop nil ?C (?h, Ref (length h)) = None"
      unfolding append_Nil by blast
  qed
qed

theorem parse_uri_stops_witness:
  "SipMessageParser_Class_parse_uri sip_uri_machine (\<lambda>f s. (0, [])) (\<lambda>f b. None) user_parser
      (Str ''sip:a'') Qtrue letters_heap = Uri_aborts \<longleftrightarrow>
    replay (\<lambda>f s. (0, [])) (\<lambda>f b. None) nil
      (calls_for sip_uri_machine (\<lambda>f s. (0, [])) (\<lambda>f b. None) user_parser ''sip:a'' Qtrue letters_heap)
      (letters_heap @ [new_robj cNameAddr Instance], Ref 1) = None"
proof -
  have "CHR 0x00 \<notin> set ''sip:a''" by simp
  moreover have "uri_class Qtrue = cNameAddr" "length letters_heap = 1"
    by (simp_all add: uri_class_def letters_heap_def)
  ultimately show ?thesis
    using parse_uri_stops [of "''sip:a''" "\<lambda>f s. (0, [])" "\<lambda>f b. None" user_parser Qtrue letters_heap]
    by (simp only: simp_thms)
qed

end
