(* ===== verification/Spec2Isabelle.thy ===== *)
theory Spec2Isabelle
  imports Inet_Reference Ws_Framing Header_Names Ruby_C_Util Outbound_Utils
    Haproxy_Protocol Ws_Http_Properties Sip_Properties Sip_Uri_Properties
begin

text \<open>
  OverSIP is a SIP and WebSocket server in Ruby whose parsers and helpers are C extensions of the
  interpreter (\<open>src/ext\<close>).  This development models the C code, function by function, and proves
  what it promises to the Ruby code that calls it.  Properties have the numbers C1, C2, \<dots> in the
  order of their importance; each stands right after the text that states it.

  \<^bold>\<open>The program.\<close>  Four kinds of C code work together.  Small helpers are shared by the extensions:
  \<open>ext/common/c_util.h\<close> and \<open>ext/common/ruby_c_util.h\<close> (numbers, case, unescaping) and
  \<open>ext/sip_parser/common_headers.h\<close> (names of header fields).  Scanners of one string are generated by
  ragel as code with gotos: \<open>ext/utils\<close> has one each for IP addresses, flow tokens and HAProxy lines,
  and a Ruby module around them.  Two parsers of messages are generated by ragel as tables with a
  loop: \<open>ext/websocket_http_parser\<close> and \<open>ext/sip_parser\<close>; they read a buffer that grows, mark
  positions in it, and call back into Ruby to build a message.  Stand-alone routines are
  \<open>ext/stun\<close> (a STUN response) and \<open>ext/websocket_framing_utils\<close> (masking and UTF-8).

  \<^bold>\<open>Conventions.\<close>  A C buffer is the list of its characters, a pointer into it an index or the rest
  of the list (\<open>Prelude\<close>); \<open>char\<close> is signed (\<open>schar\<close>).  Machine integers are words, or integers with
  the reduction written out.  What C leaves undefined (a read or a write outside a buffer, a failed
  \<open>assert\<close>, an overflow of a signed number, an uninitialised variable) is \<open>None\<close> or \<open>Inl\<close>, so a
  theorem that gives \<open>Some\<close> says that it does not happen.  Ruby values are a datatype
  (\<open>Ruby_Value\<close>); where objects are shared or changed they live in a store (\<open>Ruby_Heap\<close>,
  \<open>Ruby_Request\<close>).  \<open>inet_pton\<close> and \<open>inet_ntop\<close> of the system are the parameters \<open>pton\<close> and \<open>ntop\<close>
  with named hypotheses, and \<open>Inet_Reference\<close> has functions for which these hold.  No definition has
  a bound on its input; loops are structural recursions over the characters or have a measure, and
  there is no fuel.

  \<^bold>\<open>Helpers.\<close>  \<open>C_Util\<close> (with \<open>strtol\<close> of the C library), \<open>Ruby_C_Util\<close> and \<open>Header_Names\<close> have one
  definition per function.  Their properties: \<open>str_to_int\<close> is the decimal value and where it
  overflows; unescaping is inverse to escaping, and for which strings it reads behind its copy; the
  canonical name of a header field does not depend on case or short form.

  \<^bold>\<open>Scanners with gotos.\<close>  \<open>Ragel_Goto\<close> is the shape of the generated code: blocks of tests, actions
  and jumps.  \<open>Ip_Automaton\<close>, \<open>Outbound_Automaton\<close> and \<open>Haproxy_Automaton\<close> are the blocks of the three
  files, state by state.  \<open>Grammar_Rx\<close> and \<open>Rx_Shape\<close> are the grammar expressions of the \<open>.rl\<close>
  files and executable checks on them, \<open>Ip_Grammar\<close> and \<open>Flow_Grammar\<close> the grammars, \<open>Ipv4_Spec\<close> and
  \<open>Port_Spec\<close> what they mean in plain terms.  The locale \<open>certified_automaton\<close> (\<open>Automaton_Cert\<close>)
  says what it takes for blocks to recognise grammars: a certificate per state and an executable
  check of each row.  \<open>Ip_Certificate\<close>, \<open>Outbound_Certificate\<close> and the \<open>Haproxy_Certificate\<close> theories
  check every row, and \<open>Ip_Parser\<close>, \<open>Outbound_Utils\<close> and \<open>Haproxy_Protocol\<close> interpret the locale, so
  that what the C code accepts and the positions its actions note follow from the grammar.
  \<open>Flow_Events\<close> and \<open>Flow_Lines\<close> are what the last two share.  \<open>Ip_Utils\<close> has the functions of
  \<open>utils_ruby.h\<close> and \<open>utils_ruby.c\<close> on top.

  \<^bold>\<open>Parsers with tables.\<close>  \<open>Ragel_Table\<close> is the generated loop with its binary searches over arrays,
  and the proof that they find what a state's row says.  \<open>Ragel_Cond\<close> is the same for a grammar with
  conditions, where a character is widened to a code that says which of them hold; its second half
  shows that no array is read outside its bounds (\<open>cond_step_takes\<close>, \<open>cond_step_inside\<close>), from checks
  that go through each array once (\<open>all_inside\<close>).  The parsers use \<open>Parser_Buffer\<close> (lengths, \<open>int\<close>,
  \<open>LONG2FIX\<close>), \<open>Parser_Error\<close> (the text that marks the wrong character) and \<open>Strtol_Number\<close>.

  \<^bold>\<open>The WebSocket HTTP parser.\<close>  \<open>Ws_Http_Tables\<close> has all arrays of \<open>ws_http_parser.c\<close>, \<open>Ws_Http_Rows\<close>
  reads them as rows, \<open>Ws_Http_Parser\<close> has the struct, the actions and \<open>execute\<close>, \<open>Ws_Http_Ruby\<close> the
  callbacks and the methods of \<open>ws_http_parser_ruby.c\<close>.  \<open>Ws_Http_Trace\<close>, \<open>Ws_Http_Run\<close> and
  \<open>Ws_Http_Session\<close> follow runs under a certificate: an abstract state of the struct for each machine
  state, which bounds every slice that a callback is given (the locales \<open>ws_certified\<close>, \<open>ws_client\<close>,
  \<open>ws_total_client\<close> and \<open>ws_parsing\<close>).  \<open>Ws_Http_Certificate\<close> checks it for all 442 states,
  \<open>Ws_Http_Request\<close> shows that each callback is one change of what a reader of the request sees and
  interprets the client locales, \<open>Ws_Http_Guide\<close> has a way to the final state from every state,
  \<open>Ws_Http_Example\<close> one evaluated request, and \<open>Ws_Http_Class\<close> and \<open>Ws_Http_Properties\<close> the properties
  of the class: pieces, answers, the object built, errors, completion.

  \<^bold>\<open>The SIP message parser.\<close>  \<open>Sip_Message\<close> has the enumerations of \<open>sip_parser.h\<close> and the callbacks
  of \<open>sip_parser_ruby.c\<close>, which build a message with its header fields, URIs and parameters in the
  store; \<open>Sip_Parser\<close> the struct, the 109 actions, the condition and \<open>execute\<close> of
  \<open>sip_message_parser.c\<close>; \<open>Sip_Class\<close> the methods of the class.  The arrays of the machine are an
  argument of \<open>execute\<close>.  The generated ones, of 7688 states, are in \<open>Sip_Msg_States\<close>, \<open>Sip_Msg_Keys\<close>,
  \<open>Sip_Msg_Indicies\<close> and \<open>Sip_Msg_Trans\<close>, a row per line of the file and in pieces of 150 lines, each
  with the check of its elements, for which \<open>Sip_Msg_Early\<close> says what part of the machine comes before
  the kind of a message is known; \<open>Sip_Machine\<close> puts them together as \<open>sip_machine\<close> and shows that
  no step reads outside them and where a message gets its kind.  \<open>Sip_Headers\<close> shows for any
  run that the other calls leave the header fields alone, which are a multimap whose Via and Route lists
  the message shares: what a field is taken for is tied to the actions of the run, not to the names
  the machine reads (\<open>first_labelled\<close> says when the two agree).  \<open>Sip_Run\<close> is the path of a
  run over the pieces of a message with two locales: \<open>sip_run\<close> for relations that every action keeps,
  and \<open>sip_observer\<close> for what is known of the struct where a call is made.  \<open>Sip_Values\<close> shows what each
  call changes of a message, \<open>Sip_Calls\<close> interprets \<open>sip_observer\<close> on the counts of header fields and
  on the URI asked for, \<open>Sip_Headers\<close> on the label of the field, and \<open>Sip_Stops\<close> shows that a run of \<open>sip_machine\<close> stops without a result only
  in a callback and calls for the kind of the message first and once.  \<open>Sip_Example\<close>
  evaluates a run of a small machine and \<open>Sip_Request\<close> one of \<open>sip_machine\<close>.  \<open>Sip_Properties\<close> has the
  properties: where the parser stops, the message says what the last calls said, the parts of
  which repeated fields give their first value, a URI call belongs to the URI asked for, and the methods for missing
  and duplicated header fields answer what came.  Those that do not name \<open>sip_machine\<close> hold for
  whatever arrays drive the parser.

  \<^bold>\<open>The SIP URI parser.\<close>  \<open>Sip_Uri\<close> has the struct, the 33 actions, the two conditions and \<open>execute\<close> of
  \<open>sip_uri_parser.c\<close> and the class method \<open>parse_uri\<close>, which calls the callbacks of \<open>Sip_Message\<close>.  Its
  arrays, of 3711 states, are in \<open>Sip_Uri_States\<close>, \<open>Sip_Uri_Cond_Keys\<close>, \<open>Sip_Uri_Keys\<close> and
  \<open>Sip_Uri_Trans\<close>, and \<open>Sip_Uri_Machine\<close> puts them together as \<open>sip_uri_machine\<close>.  \<open>Sip_Uri_Run\<close>
  shows that the store after a run is what the calls of the run make of it and what each call changes
  of the new object, and \<open>Sip_Uri_Properties\<close> what \<open>parse_uri\<close> builds, that it changes nothing else,
  and where it can stop.

  \<^bold>\<open>Stand-alone routines.\<close>  \<open>Stun\<close> is \<open>stun_ruby.c\<close> on a little-endian host, with the bytes of the
  response on every branch, what clients read from them, and what RFC 5389 clients read
  instead of their port and address.  \<open>Ws_Framing\<close> is masking and the UTF-8 validator, an instance of the locale
  \<open>absorbing_scanner\<close> of \<open>Streams\<close>.

  \<^bold>\<open>Not modelled.\<close>  The SIP grammars (the \<open>.rl\<close> files included by \<open>sip_message_parser.rl\<close> and
  \<open>sip_uri_parser.rl\<close>): the generated arrays are there, but nothing says that they recognise these
  grammars, and whether a callback can fail in a run of them is left open.  Memory management and the
  registration of classes, methods and symbols with the interpreter (the functions \<open>Init_\<close> and
  \<open>free\<close>).  The server itself, in Ruby under \<open>src/lib\<close>.
\<close>

end
